(* ===== verification/Rk_Prelude.thy ===== *)
theory Rk_Prelude
  imports Main "HOL-Library.Word" "HOL-Library.Monad_Syntax"
begin

text \<open>
  What every theory of the development shares: the names of the C types the sources use,
  the collections of facts the automation draws on, and generic lemmas on lists and options.

  \<^item> \<open>code_point\<close> is the \<open>int32_t\<close> of \<open>TSLexer.lookahead\<close>: the code only compares it, so it is
    an integer with no arithmetic on it (a decoding error shows as a negative value, the end of
    the input as 0).
  \<^item> \<open>TSSymbol\<close> and \<open>TSStateId\<close> are the \<open>uint16_t\<close> numbers of the generated tables: the code only
    stores and compares them.
  \<^item> \<open>uint32\<close> is kept at its width wherever the code computes with it.
\<close>

type_synonym code_point = int
type_synonym TSSymbol = nat
type_synonym TSStateId = nat
type_synonym TSFieldId = nat
type_synonym uint32 = "32 word"

text \<open>
  The definitions of the character classes and of \<open>code\<close>: with them \<open>simp\<close> decides the class of a
  concrete character.
\<close>

named_theorems char_simps

subsection \<open>Characters as code points\<close>

definition code :: "char \<Rightarrow> code_point" where
  code_def [char_simps]: "code c = of_char c"

lemma code_nonneg [simp]: "0 \<le> code c"
  by (simp add: code_def of_char_def)

lemma code_inj [simp]: "code c = code d \<longleftrightarrow> c = d"
  by (simp add: code_def)

lemma code_0_iff: "code c = 0 \<longleftrightarrow> c = CHR 0x00"
  using code_inj[of c "CHR 0x00"] by (simp add: code_def)

lemma code_pos_iff: "0 < code c \<longleftrightarrow> c \<noteq> CHR 0x00"
  using code_0_iff[of c] code_nonneg[of c] by linarith

subsection \<open>Lists\<close>

lemma takeWhile_all_dropWhile:
  "xs = takeWhile P xs @ dropWhile P xs"
  by simp

lemma dropWhile_hd_fails: "dropWhile P xs = y # ys \<Longrightarrow> \<not> P y"
  by (metis hd_dropWhile list.sel(1) list.distinct(1))

lemma length_dropWhile_tl:
  "dropWhile P xs = y # ys \<Longrightarrow> length ys < length xs"
  by (metis Suc_le_lessD length_Cons length_dropWhile_le)

lemma length_tl_less [simp]: "xs \<noteq> [] \<Longrightarrow> length (tl xs) < length xs"
  by (cases xs) auto

lemma map_of_eq_nth:
  assumes "map fst ps = [0..<length ps]" and "i < length ps"
  shows "map_of ps i = Some (snd (ps ! i))"
proof -
  have "fst (ps ! i) = i"
    using assms by (metis add_0 length_map nth_map nth_upt)
  then have "ps ! i = (i, snd (ps ! i))"
    by (metis prod.collapse)
  moreover have "distinct (map fst ps)"
    using assms(1) by simp
  ultimately show ?thesis
    using assms(2) by (metis map_of_is_SomeI nth_mem)
qed

lemma map_of_out_of_range:
  assumes "map fst ps = [0..<length ps]" and "length ps \<le> i"
  shows "map_of ps i = None"
proof -
  have "i \<notin> set (map fst ps)"
    using assms by simp
  then show ?thesis by (simp add: map_of_eq_None_iff)
qed

text \<open>A table whose keys are all different, as one equation for each entry.\<close>

lemma map_of_entries: "distinct (map fst xs) \<Longrightarrow> list_all (\<lambda>(k, v). map_of xs k = Some v) xs"
  by (simp add: list_all_iff split_beta)

lemma list_all_equations:
  "list_all P [] = True" "list_all P (x # xs) = (P x \<and> list_all P xs)"
  by simp_all

lemmas entry_simps = append.simps list_all_equations prod.case simp_thms

text \<open>
  Congruences for a condition on a long list that is decided element by element: the rest of the list
  is not looked at before its turn.
\<close>

lemma list_all_weak: "list_all P xs = list_all P xs"
  by simp

lemma successively_weak: "successively P xs = successively P xs"
  by simp

text \<open>Sums of \<open>uint32_t\<close> that do not wrap.\<close>

lemma unat_add_exact: "unat x + unat y < 2 ^ 32 \<Longrightarrow> unat (x + y) = unat x + unat y" for x y :: uint32
  by (subst unat_add_lem[THEN iffD1]) simp_all

end
