(* ===== verification/Dynamic_Array.thy ===== *)
theory Dynamic_Array
  imports Rk_Prelude
begin

text \<open>
  The growable array of \<open>src/crates/tree-sitter/src/tree_sitter/array.h\<close>, over the allocator that
  \<open>alloc.h\<close> names. The macros work on a struct of a pointer and two \<open>uint32_t\<close> fields; a function or
  macro here takes the struct and returns the new one.

  Memory is counted in elements. A block is a list of cells, a cell \<open>None\<close> before its first write;
  the null pointer is \<open>None\<close>. An operation that can go wrong returns a \<open>fault\<close> or its result: an
  \<open>assert\<close> that fails, which stops a program built without \<open>NDEBUG\<close>, or an access that the C standard
  leaves undefined, at which the model stops. \<open>size_t\<close> is taken to hold any number of elements times
  their size.
\<close>

section \<open>Memory\<close>

type_synonym 'a cell = "'a option"
type_synonym 'a block = "'a cell list"
type_synonym 'a pointer = "'a block option"

text \<open>
  The faults: a failed \<open>assert\<close>, and reads and writes through the null pointer, of elements outside
  the block, and of a cell never written, each with the index at which the access starts.
\<close>

datatype fault =
  Assert_Failed
| Read_Null nat | Write_Null nat
| Read_Outside nat | Write_Outside nat
| Read_Unwritten nat

type_synonym 'a result = "fault + 'a"

text \<open>The first fault ends a sequence of steps.\<close>

fun and_then :: "'a result \<Rightarrow> ('a \<Rightarrow> 'b result) \<Rightarrow> 'b result" where
  "and_then (Inl e) f = Inl e"
| "and_then (Inr x) f = f x"

lemma and_then_Inr: "and_then m f = Inr y \<longleftrightarrow> (\<exists>x. m = Inr x \<and> f x = Inr y)"
  by (cases m) auto

lemma and_then_Inl: "and_then m f = Inl e \<longleftrightarrow> m = Inl e \<or> (\<exists>x. m = Inr x \<and> f x = Inl e)"
  by (cases m) auto

text \<open>\<open>ts_malloc\<close> and \<open>ts_realloc\<close> of \<open>alloc.h\<close>, which return null when there is no memory.\<close>

record 'a allocator =
  ts_malloc :: "nat \<Rightarrow> 'a pointer"
  ts_realloc :: "'a block \<Rightarrow> nat \<Rightarrow> 'a pointer"

text \<open>
  \<open>memcpy\<close>, \<open>memmove\<close> within a block and \<open>memset\<close> to zero; no bytes are no access, and what is
  copied is read before anything is written.
\<close>

definition memcpy :: "'a pointer \<Rightarrow> nat \<Rightarrow> 'a block \<Rightarrow> 'a pointer result" where
  "memcpy p to vs =
     (if vs = [] then Inr p
      else case p of
        None \<Rightarrow> Inl (Write_Null to)
      | Some b \<Rightarrow>
          if to + length vs \<le> length b
          then Inr (Some (take to b @ vs @ drop (to + length vs) b)) else Inl (Write_Outside to))"

definition memmove :: "'a pointer \<Rightarrow> nat \<Rightarrow> nat \<Rightarrow> nat \<Rightarrow> 'a pointer result" where
  "memmove p to from_here n =
     (if n = 0 then Inr p
      else case p of
        None \<Rightarrow> Inl (Read_Null from_here)
      | Some b \<Rightarrow>
          if from_here + n \<le> length b then memcpy p to (take n (drop from_here b))
          else Inl (Read_Outside from_here))"

definition memset_zero :: "'a \<Rightarrow> 'a pointer \<Rightarrow> nat \<Rightarrow> nat \<Rightarrow> 'a pointer result" where
  "memset_zero zero p to n = memcpy p to (replicate n (Some zero))"

definition read_cell :: "'a pointer \<Rightarrow> nat \<Rightarrow> 'a result" where
  "read_cell p i =
     (case p of
        None \<Rightarrow> Inl (Read_Null i)
      | Some b \<Rightarrow>
          if i < length b
          then (case b ! i of None \<Rightarrow> Inl (Read_Unwritten i) | Some x \<Rightarrow> Inr x)
          else Inl (Read_Outside i))"

text \<open>The first \<open>n\<close> cells at a pointer, the source of a \<open>memcpy\<close>, which may hold cells never written.\<close>

definition read_cells :: "'a pointer \<Rightarrow> nat \<Rightarrow> 'a block result" where
  "read_cells p n =
     (case p of
        None \<Rightarrow> if n = 0 then Inr [] else Inl (Read_Null 0)
      | Some b \<Rightarrow> if n \<le> length b then Inr (take n b) else Inl (Read_Outside 0))"

definition write_cell :: "'a pointer \<Rightarrow> nat \<Rightarrow> 'a \<Rightarrow> 'a pointer result" where
  "write_cell p i x = memcpy p i [Some x]"

section \<open>The struct\<close>

record 'a Array =
  contents :: "'a pointer"
  array_size :: uint32
  capacity :: uint32

definition array_new :: "'a Array" where
  "array_new = \<lparr>contents = None, array_size = 0, capacity = 0\<rparr>"

definition array_init :: "'a Array \<Rightarrow> 'a Array" where
  "array_init self = self\<lparr>array_size := 0, capacity := 0, contents := None\<rparr>"

definition array_clear :: "'a Array \<Rightarrow> 'a Array" where
  "array_clear self = self\<lparr>array_size := 0\<rparr>"

text \<open>\<open>array_get\<close> is the address of an element; here, the element read there.\<close>

definition array_get :: "'a Array \<Rightarrow> uint32 \<Rightarrow> 'a result" where
  "array_get self index =
     (if index < array_size self then read_cell (contents self) (unat index) else Inl Assert_Failed)"

definition array_front :: "'a Array \<Rightarrow> 'a result" where
  "array_front self = array_get self 0"

definition array_back :: "'a Array \<Rightarrow> 'a result" where
  "array_back self = array_get self (array_size self - 1)"

text \<open>\<open>array_pop\<close> checks nothing: of no elements, the size wraps and indexes the block all the same.\<close>

definition array_pop :: "'a Array \<Rightarrow> ('a \<times> 'a Array) result" where
  "array_pop self =
     (let self = self\<lparr>array_size := array_size self - 1\<rparr> in
      and_then (read_cell (contents self) (unat (array_size self))) (\<lambda>x. Inr (x, self)))"

section \<open>The functions behind the macros\<close>

text \<open>\<open>_array__delete\<close>: the block is freed and the struct zeroed.\<close>

definition array__delete :: "'a Array \<Rightarrow> 'a Array" where
  "array__delete self = \<lparr>contents = None, array_size = 0, capacity = 0\<rparr>"

definition array__erase :: "'a pointer \<Rightarrow> uint32 \<Rightarrow> uint32 \<Rightarrow> ('a pointer \<times> uint32) result" where
  "array__erase p sz index =
     (if index < sz then
        and_then (memmove p (unat index) (unat (index + 1)) (unat (sz - index - 1)))
          (\<lambda>p. Inr (p, sz - 1))
      else Inl Assert_Failed)"

definition array__reserve ::
  "'a allocator \<Rightarrow> 'a pointer \<Rightarrow> uint32 \<Rightarrow> uint32 \<Rightarrow> 'a pointer \<times> uint32" where
  "array__reserve A p cap new_capacity =
     (if cap < new_capacity
      then (case p of
              Some b \<Rightarrow> ts_realloc A b (unat new_capacity)
            | None \<Rightarrow> ts_malloc A (unat new_capacity), new_capacity)
      else (p, cap))"

definition array__assign ::
  "'a allocator \<Rightarrow> 'a pointer \<Rightarrow> uint32 \<Rightarrow> 'a pointer \<Rightarrow> uint32 \<Rightarrow> ('a pointer \<times> uint32 \<times> uint32) result"
where
  "array__assign A p cap other_contents other_size =
     (let (p, cap) = array__reserve A p cap other_size in
      and_then (read_cells other_contents (unat other_size)) (\<lambda>vs.
      and_then (memcpy p 0 vs) (\<lambda>p.
      Inr (p, other_size, cap))))"

definition array__swap :: "'a Array \<Rightarrow> 'a Array \<Rightarrow> 'a Array \<times> 'a Array" where
  "array__swap self other =
     (\<lparr>contents = contents other, array_size = array_size other, capacity = capacity other\<rparr>,
      \<lparr>contents = contents self, array_size = array_size self, capacity = capacity self\<rparr>)"

text \<open>The capacity an array grows to when it has to: double, at least 8, at least what is asked.\<close>

definition grown_capacity :: "uint32 \<Rightarrow> uint32 \<Rightarrow> uint32" where
  "grown_capacity cap new_size =
     (let new_capacity = cap * 2;
          new_capacity = (if new_capacity < 8 then 8 else new_capacity)
      in if new_capacity < new_size then new_size else new_capacity)"

definition array__grow ::
  "'a allocator \<Rightarrow> 'a pointer \<Rightarrow> uint32 \<Rightarrow> uint32 \<Rightarrow> uint32 \<Rightarrow> 'a pointer \<times> uint32" where
  "array__grow A p sz cap count =
     (let new_size = sz + count in
      if cap < new_size then array__reserve A p cap (grown_capacity cap new_size) else (p, cap))"

text \<open>
  \<open>elements\<close> is the null pointer or the start of a block other than the array's own, which a growing
  array would free.
\<close>

definition array__splice ::
  "'a allocator \<Rightarrow> 'a \<Rightarrow> 'a Array \<Rightarrow> uint32 \<Rightarrow> uint32 \<Rightarrow> uint32 \<Rightarrow> 'a pointer \<Rightarrow> 'a Array result"
where
  "array__splice A zero self index old_count new_count elements =
     (let new_size = array_size self + new_count - old_count;
          old_end = index + old_count;
          new_end = index + new_count
      in if \<not> old_end \<le> array_size self then Inl Assert_Failed
         else
           let (p, cap) = array__reserve A (contents self) (capacity self) new_size in
           and_then
             (if old_end < array_size self
              then memmove p (unat new_end) (unat old_end) (unat (array_size self - old_end))
              else Inr p) (\<lambda>p.
           and_then
             (if 0 < new_count then
                (case elements of
                   Some _ \<Rightarrow> and_then (read_cells elements (unat new_count)) (memcpy p (unat index))
                 | None \<Rightarrow> memset_zero zero p (unat index) (unat new_count))
              else Inr p) (\<lambda>p.
           Inr \<lparr>contents = p, array_size = array_size self + (new_count - old_count), capacity = cap\<rparr>)))"

section \<open>The macros\<close>

definition array_reserve :: "'a allocator \<Rightarrow> 'a Array \<Rightarrow> uint32 \<Rightarrow> 'a Array" where
  "array_reserve A self new_capacity =
     (let (p, cap) = array__reserve A (contents self) (capacity self) new_capacity
      in self\<lparr>contents := p, capacity := cap\<rparr>)"

definition array_push :: "'a allocator \<Rightarrow> 'a Array \<Rightarrow> 'a \<Rightarrow> 'a Array result" where
  "array_push A self x =
     (let (p, cap) = array__grow A (contents self) (array_size self) (capacity self) 1 in
      and_then (write_cell p (unat (array_size self)) x) (\<lambda>p.
      Inr \<lparr>contents = p, array_size = array_size self + 1, capacity = cap\<rparr>))"

definition array_grow_by :: "'a allocator \<Rightarrow> 'a \<Rightarrow> 'a Array \<Rightarrow> uint32 \<Rightarrow> 'a Array result" where
  "array_grow_by A zero self count =
     (if count = 0 then Inr self
      else
        let (p, cap) = array__grow A (contents self) (array_size self) (capacity self) count in
        and_then (memset_zero zero p (unat (array_size self)) (unat count)) (\<lambda>p.
        Inr \<lparr>contents = p, array_size = array_size self + count, capacity = cap\<rparr>))"

definition array_splice ::
  "'a allocator \<Rightarrow> 'a \<Rightarrow> 'a Array \<Rightarrow> uint32 \<Rightarrow> uint32 \<Rightarrow> uint32 \<Rightarrow> 'a pointer \<Rightarrow> 'a Array result"
where
  "array_splice A zero self index old_count new_count new_contents =
     array__splice A zero self index old_count new_count new_contents"

definition array_extend ::
  "'a allocator \<Rightarrow> 'a \<Rightarrow> 'a Array \<Rightarrow> uint32 \<Rightarrow> 'a pointer \<Rightarrow> 'a Array result" where
  "array_extend A zero self count other_contents =
     array__splice A zero self (array_size self) 0 count other_contents"

definition array_push_all :: "'a allocator \<Rightarrow> 'a \<Rightarrow> 'a Array \<Rightarrow> 'a Array \<Rightarrow> 'a Array result" where
  "array_push_all A zero self other = array_extend A zero self (array_size other) (contents other)"

definition array_insert ::
  "'a allocator \<Rightarrow> 'a \<Rightarrow> 'a Array \<Rightarrow> uint32 \<Rightarrow> 'a \<Rightarrow> 'a Array result" where
  "array_insert A zero self index x = array__splice A zero self index 0 1 (Some [Some x])"

definition array_erase :: "'a Array \<Rightarrow> uint32 \<Rightarrow> 'a Array result" where
  "array_erase self index =
     and_then (array__erase (contents self) (array_size self) index)
       (\<lambda>(p, sz). Inr (self\<lparr>contents := p, array_size := sz\<rparr>))"

definition array_assign :: "'a allocator \<Rightarrow> 'a Array \<Rightarrow> 'a Array \<Rightarrow> 'a Array result" where
  "array_assign A self other =
     and_then (array__assign A (contents self) (capacity self) (contents other) (array_size other))
       (\<lambda>(p, sz, cap). Inr \<lparr>contents = p, array_size = sz, capacity = cap\<rparr>)"

definition array_delete :: "'a Array \<Rightarrow> 'a Array" where
  "array_delete self = array__delete self"

definition array_swap :: "'a Array \<Rightarrow> 'a Array \<Rightarrow> 'a Array \<times> 'a Array" where
  "array_swap self other = array__swap self other"

end
