(* ===== verification/Array_Correct.thy ===== *)
theory Array_Correct
  imports Dynamic_Array
begin

text \<open>
  The array against a list. \<open>represents self xs\<close> is the refinement relation: the first elements of
  the block are \<open>xs\<close>. Under the locale of an allocator that finds memory, every operation is defined
  and does to the list what its name says.
\<close>

section \<open>The refinement relation\<close>

definition represents :: "'a Array \<Rightarrow> 'a list \<Rightarrow> bool" where
  "represents self xs \<longleftrightarrow>
     unat (array_size self) = length xs \<and> array_size self \<le> capacity self \<and>
     (case contents self of
        None \<Rightarrow> capacity self = 0
      | Some b \<Rightarrow> length b = unat (capacity self) \<and> take (length xs) b = map Some xs)"

text \<open>The block alone, with room for \<open>n\<close> elements: what the functions on pointers hand on.\<close>

definition block_of :: "'a pointer \<Rightarrow> nat \<Rightarrow> 'a list \<Rightarrow> bool" where
  "block_of p n xs \<longleftrightarrow>
     length xs \<le> n \<and>
     (case p of None \<Rightarrow> n = 0 | Some b \<Rightarrow> length b = n \<and> take (length xs) b = map Some xs)"

lemma represents_block:
  "represents self xs \<longleftrightarrow>
     unat (array_size self) = length xs \<and> block_of (contents self) (unat (capacity self)) xs"
  by (auto simp: represents_def block_of_def word_le_nat_alt unat_eq_zero split: option.splits)

lemma represents_unique: "represents self xs \<Longrightarrow> represents self ys \<Longrightarrow> xs = ys"
  by (auto simp: represents_def unat_eq_zero split: option.splits)

section \<open>Memory\<close>

lemma memcpy_block:
  "to + length vs \<le> length b \<Longrightarrow>
     memcpy (Some b) to vs = Inr (Some (take to b @ vs @ drop (to + length vs) b))"
  by (auto simp: memcpy_def)

lemma memmove_block:
  "to + n \<le> length b \<Longrightarrow> from_here + n \<le> length b \<Longrightarrow>
     memmove (Some b) to from_here n =
       Inr (Some (take to b @ take n (drop from_here b) @ drop (to + n) b))"
  by (auto simp: memmove_def memcpy_block)

text \<open>Writing \<open>vs\<close> at a place of the represented part, or right after it.\<close>

lemma block_of_memcpy:
  assumes "block_of p n xs" and "to \<le> length xs" and "to + length vs \<le> n"
  shows "\<exists>p'. memcpy p to (map Some vs) = Inr p' \<and> block_of p' n (take to xs @ vs @ drop (to + length vs) xs)"
proof (cases p)
  case None
  then show ?thesis
    using assms by (auto simp: block_of_def memcpy_def)
next
  case (Some b)
  let ?e = "to + length vs"
  have b: "length b = n" "take (length xs) b = map Some xs" "length xs \<le> n"
    using assms(1) Some by (auto simp: block_of_def)
  have head: "take to b = map Some (take to xs)"
    using assms(2) b(2) by (metis min_absorb1 take_map take_take)
  have tail: "take (length xs - ?e) (drop ?e b) = map Some (drop ?e xs)"
    using b(2) by (metis drop_map drop_take)
  have "length (take to xs @ vs @ drop ?e xs) = to + (length vs + (length xs - ?e))"
    using assms(2) by simp
  moreover have "take (to + (length vs + (length xs - ?e))) (take to b @ map Some vs @ drop ?e b) =
      map Some (take to xs @ vs @ drop ?e xs)"
    using assms(2) b(1,3) tail head by (simp add: take_add)
  moreover have "length (take to b @ map Some vs @ drop ?e b) = n" "to + (length vs + (length xs - ?e)) \<le> n"
    using assms(2,3) b(1,3) by auto
  ultimately show ?thesis
    using assms(3) b(1) by (simp add: Some memcpy_block block_of_def del: length_append)
qed

lemma block_of_read:
  assumes "block_of p n xs" and "i < length xs"
  shows "read_cell p i = Inr (xs ! i)"
proof -
  obtain b where b: "p = Some b" "take (length xs) b = map Some xs" "length xs \<le> length b"
    using assms by (cases p) (auto simp: block_of_def)
  have "b ! i = take (length xs) b ! i"
    using assms(2) by simp
  then have "b ! i = Some (xs ! i)"
    using assms(2) b(2) by simp
  with assms(2) b show ?thesis
    by (simp add: read_cell_def)
qed

lemma block_of_take:
  assumes "block_of p n xs"
  shows "block_of p n (take k xs)"
proof (cases p)
  case (Some b)
  have "take (length (take k xs)) b = take k (take (length xs) b)"
    by (simp add: min.commute)
  with assms Some show ?thesis
    by (auto simp: block_of_def take_map)
qed (use assms in \<open>auto simp: block_of_def\<close>)

text \<open>Moving the represented elements from \<open>i\<close> on to \<open>j\<close>; what stands before \<open>j\<close> is kept.\<close>

lemma block_of_memmove:
  assumes "block_of p n xs" and "i \<le> length xs" and "j \<le> length xs" and "j + (length xs - i) \<le> n"
  shows "\<exists>p'. memmove p j i (length xs - i) = Inr p' \<and> block_of p' n (take j xs @ drop i xs)"
proof (cases "i = length xs")
  case True
  with assms(1) show ?thesis
    by (simp add: memmove_def block_of_take)
next
  case False
  then obtain b where b: "p = Some b" "length b = n" "take (length xs) b = map Some xs" "length xs \<le> n"
    using assms(1,2) by (cases p) (auto simp: block_of_def)
  have "take (length xs - i) (drop i b) = map Some (drop i xs)"
    using b(3) by (metis drop_map drop_take)
  moreover have "memmove p j i (length xs - i) = memcpy p j (take (length xs - i) (drop i b))"
    using False assms(2) b by (simp add: memmove_def)
  moreover obtain p' where "memcpy p j (map Some (drop i xs)) = Inr p'"
      "block_of p' n (take j xs @ drop i xs @ drop (j + length (drop i xs)) xs)"
    using block_of_memcpy[OF assms(1,3), of "drop i xs"] assms(4) by auto
  moreover from this(2) have "block_of p' n (take j xs @ drop i xs)"
    using block_of_take[of p' n _ "j + (length xs - i)"] assms(3) by fastforce
  ultimately show ?thesis
    by auto
qed

section \<open>Splicing a block\<close>

text \<open>The elements \<open>array__splice\<close> reads, or the zeros it writes for the null pointer.\<close>

definition elements_are :: "'a pointer \<Rightarrow> 'a \<Rightarrow> nat \<Rightarrow> 'a list \<Rightarrow> bool" where
  "elements_are elements zero n vs \<longleftrightarrow>
     length vs = n \<and>
     (case elements of
        None \<Rightarrow> vs = replicate n zero
      | Some b \<Rightarrow> n \<le> length b \<and> take n b = map Some vs)"

lemma elements_are_memcpy:
  assumes "elements_are elements zero (unat new_count) vs"
  shows "(if 0 < new_count then
            (case elements of
               Some _ \<Rightarrow> and_then (read_cells elements (unat new_count)) (memcpy p i)
             | None \<Rightarrow> memset_zero zero p i (unat new_count))
          else Inr p) = memcpy p i (map Some vs)"
proof (cases "new_count = 0")
  case True
  with assms show ?thesis
    by (simp add: elements_are_def memcpy_def)
next
  case False
  then have "0 < new_count"
    by (simp add: word_neq_0_conv)
  with assms show ?thesis
    by (auto simp: elements_are_def memset_zero_def read_cells_def split: option.splits)
qed

text \<open>The tail moved to its new place and the elements written before it.\<close>

lemma splice_block:
  assumes b: "length b = n" "take (length xs) b = map Some xs" "length xs \<le> n"
    and range: "i \<le> e" "e \<le> length xs" and room: "i + length vs + (length xs - e) \<le> n"
  shows "\<exists>b'. memmove (Some b) (i + length vs) e (length xs - e) = Inr (Some b') \<and>
    (\<exists>p'. memcpy (Some b') i (map Some vs) = Inr p' \<and>
      block_of p' n (take i xs @ vs @ drop e xs))"
proof -
  let ?tail = "take (length xs - e) (drop e b)"
  let ?b' = "take (i + length vs) b @ ?tail @ drop (i + length vs + (length xs - e)) b"
  have "memmove (Some b) (i + length vs) e (length xs - e) = Inr (Some ?b')"
    using assms by (intro memmove_block) auto
  moreover have "memcpy (Some ?b') i (map Some vs) =
      Inr (Some (take i ?b' @ map Some vs @ drop (i + length vs) ?b'))"
    using assms by (subst memcpy_block) auto
  moreover have "take i ?b' = map Some (take i xs)"
  proof -
    have "i \<le> length xs" using range by simp
    then have "take i b = take i (take (length xs) b)"
      by (simp add: min_absorb1)
    then have "take i b = map Some (take i xs)"
      unfolding b(2) by (simp add: take_map)
    moreover have "take i ?b' = take i b"
      using room by (simp add: b(1) min_def)
    ultimately show ?thesis by simp
  qed
  moreover have "drop (i + length vs) ?b' = map Some (drop e xs) @ drop (i + length vs + (length xs - e)) b"
  proof -
    have "?tail = map Some (drop e xs)"
      using b(2) by (metis drop_map drop_take)
    moreover have "length (take (i + length vs) b) = i + length vs"
      using b(1) room by simp
    ultimately show ?thesis by simp
  qed
  ultimately show ?thesis
    using assms by (auto simp: block_of_def)
qed

section \<open>The allocator\<close>

text \<open>
  The functions of \<open>alloc.h\<close> as the C standard describes them: a block has the size asked for, and
  \<open>realloc\<close> keeps what fits. A \<open>total_allocator\<close> always finds memory.
\<close>

locale allocator =
  fixes A :: "'a allocator"
  assumes malloc_length: "ts_malloc A n = Some b \<Longrightarrow> length b = n"
    and realloc_length: "ts_realloc A b n = Some b' \<Longrightarrow> length b' = n"
    and realloc_keeps: "ts_realloc A b n = Some b' \<Longrightarrow> k \<le> length b \<Longrightarrow> k \<le> n \<Longrightarrow> take k b' = take k b"

locale total_allocator = allocator A for A :: "'a allocator" +
  assumes malloc_total: "ts_malloc A n \<noteq> None"
    and realloc_total: "ts_realloc A b n \<noteq> None"
begin

lemma reserve_block:
  assumes "block_of p (unat cap) xs"
  shows "\<exists>p'. array__reserve A p cap m = (p', max cap m) \<and> block_of p' (unat (max cap m)) xs"
proof (cases "cap < m")
  case False
  with assms show ?thesis
    by (simp add: array__reserve_def max_def)
next
  case True
  then have less: "unat cap < unat m"
    by (simp add: word_less_nat_alt)
  have "\<exists>p'. (case p of Some b \<Rightarrow> ts_realloc A b (unat m) | None \<Rightarrow> ts_malloc A (unat m)) = p' \<and>
      block_of p' (unat m) xs"
  proof (cases p)
    case None
    then obtain b where "ts_malloc A (unat m) = Some b"
      using malloc_total by blast
    with None assms malloc_length[OF this] show ?thesis
      by (auto simp: block_of_def)
  next
    case (Some b)
    then obtain b' where b': "ts_realloc A b (unat m) = Some b'"
      using realloc_total by blast
    have "take (length xs) b' = take (length xs) b"
      using assms Some less by (intro realloc_keeps[OF b']) (auto simp: block_of_def)
    with Some assms b' less realloc_length[OF b'] show ?thesis
      by (auto simp: block_of_def)
  qed
  with True show ?thesis
    by (auto simp: array__reserve_def max_def)
qed

text \<open>An array grows to hold what is asked for, and never asks for less than double.\<close>

lemma grown_capacity_bound: "new_size \<le> grown_capacity cap new_size"
  by (auto simp: grown_capacity_def Let_def not_less)

lemma grow_block:
  assumes "block_of p (unat cap) xs" and "unat sz = length xs"
    and "unat sz + unat count < 2 ^ 32"
  shows "\<exists>p' cap'. array__grow A p sz cap count = (p', cap') \<and> block_of p' (unat cap') xs \<and>
    unat sz + unat count \<le> unat cap'"
proof -
  have sum: "unat (sz + count) = unat sz + unat count"
    using assms(3) by (simp add: unat_add_exact)
  show ?thesis
  proof (cases "cap < sz + count")
    case False
    then have "array__grow A p sz cap count = (p, cap)" "sz + count \<le> cap"
      by (simp_all add: array__grow_def Let_def)
    with assms(1) sum show ?thesis
      by (simp add: word_le_nat_alt)
  next
    case True
    let ?m = "grown_capacity cap (sz + count)"
    have "cap < ?m"
      using True grown_capacity_bound order_less_le_trans by blast
    then have "max cap ?m = ?m"
      by simp
    with True reserve_block[OF assms(1), of ?m] grown_capacity_bound[of "sz + count" cap] sum
    show ?thesis
      by (auto simp: array__grow_def Let_def word_le_nat_alt)
  qed
qed

text \<open>The operations that may grow the array.\<close>

lemma array_reserve_correct:
  assumes "represents self xs"
  shows "represents (array_reserve A self m) xs \<and> capacity (array_reserve A self m) = max (capacity self) m"
  using assms reserve_block[of "contents self" "capacity self" xs m]
  by (auto simp: represents_block array_reserve_def)

lemma array_push_correct:
  assumes "represents self xs" and "Suc (length xs) < 2 ^ 32"
  shows "\<exists>self'. array_push A self x = Inr self' \<and> represents self' (xs @ [x])"
proof -
  have sz: "unat (array_size self) = length xs" "block_of (contents self) (unat (capacity self)) xs"
    using assms(1) by (simp_all add: represents_block)
  obtain p cap where grow: "array__grow A (contents self) (array_size self) (capacity self) 1 = (p, cap)"
      "block_of p (unat cap) xs" "Suc (length xs) \<le> unat cap"
    using grow_block[OF sz(2,1), of 1] assms(2) sz(1) by auto
  obtain p' where "memcpy p (length xs) (map Some [x]) = Inr p'" "block_of p' (unat cap) (xs @ [x])"
    using block_of_memcpy[OF grow(2), of "length xs" "[x]"] grow(3) by auto
  moreover have "unat (array_size self + 1) = Suc (length xs)"
    using sz(1) assms(2) by (simp add: unat_add_exact)
  ultimately show ?thesis
    using grow(1) sz(1) by (auto simp: array_push_def write_cell_def represents_block)
qed

lemma array_grow_by_correct:
  assumes "represents self xs" and "length xs + unat count < 2 ^ 32"
  shows "\<exists>self'. array_grow_by A zero self count = Inr self' \<and>
    represents self' (xs @ replicate (unat count) zero)"
proof (cases "count = 0")
  case True
  with assms(1) show ?thesis by (simp add: array_grow_by_def)
next
  case False
  have sz: "unat (array_size self) = length xs" "block_of (contents self) (unat (capacity self)) xs"
    using assms(1) by (simp_all add: represents_block)
  obtain p cap where grow: "array__grow A (contents self) (array_size self) (capacity self) count = (p, cap)"
      "block_of p (unat cap) xs" "length xs + unat count \<le> unat cap"
    using grow_block[OF sz(2,1), of count] assms(2) sz(1) by auto
  obtain p' where "memcpy p (length xs) (map Some (replicate (unat count) zero)) = Inr p'"
      "block_of p' (unat cap) (xs @ replicate (unat count) zero)"
    using block_of_memcpy[OF grow(2), of "length xs" "replicate (unat count) zero"] grow(3) by auto
  moreover have "unat (array_size self + count) = length xs + unat count"
    using sz(1) assms(2) by (simp add: unat_add_exact)
  ultimately show ?thesis
    using grow(1) sz(1) False by (auto simp: array_grow_by_def memset_zero_def represents_block)
qed

lemma array__splice_correct:
  assumes rep: "represents self xs"
    and range: "unat index + unat old_count \<le> length xs"
    and fits: "length xs - unat old_count + unat new_count < 2 ^ 32"
    and vs: "elements_are elements zero (unat new_count) vs"
  shows "\<exists>self'. array__splice A zero self index old_count new_count elements = Inr self' \<and>
    represents self' (take (unat index) xs @ vs @ drop (unat index + unat old_count) xs)"
proof -
  let ?n = "length xs" and ?i = "unat index" and ?e = "unat index + unat old_count"
  let ?new_size = "array_size self + new_count - old_count"
  have sz: "unat (array_size self) = ?n" "block_of (contents self) (unat (capacity self)) xs"
    using rep by (simp_all add: represents_block)
  have len: "length vs = unat new_count"
    using vs by (simp add: elements_are_def)
  have bound: "?n < 2 ^ 32"
    unfolding sz(1)[symmetric] by (rule order_less_le_trans[OF unsigned_less]) simp
  have old_end: "unat (index + old_count) = ?e"
    using range bound by (simp add: unat_add_exact)
  have less: "old_count \<le> array_size self" "index + old_count \<le> array_size self"
    using range sz(1) old_end by (simp_all add: word_le_nat_alt)
  have tail: "unat (array_size self - (index + old_count)) = ?n - ?e"
    using less(2) sz(1) old_end by (simp add: unat_sub)
  have difference: "unat (array_size self - old_count) = ?n - unat old_count"
    using less(1) sz(1) by (simp add: unat_sub)
  have "unat ((array_size self - old_count) + new_count) = ?n - unat old_count + unat new_count"
    using fits by (subst unat_add_exact) (simp_all add: difference)
  then have new_size: "unat ?new_size = ?n - unat old_count + unat new_count"
    by (simp add: algebra_simps)
  let ?cap = "max (capacity self) ?new_size"
  obtain p where reserve: "array__reserve A (contents self) (capacity self) ?new_size = (p, ?cap)"
      "block_of p (unat ?cap) xs"
    using reserve_block[OF sz(2), of ?new_size] by auto
  have room: "unat ?new_size \<le> unat ?cap"
    by (metis max.cobounded2 word_le_nat_alt)
  have new_end: "unat (index + new_count) = ?i + unat new_count" if "?e < ?n"
    using that fits range by (intro unat_add_exact) linarith
  have "\<exists>p1 p2. (if index + old_count < array_size self
        then memmove p (unat (index + new_count)) ?e (?n - ?e) else Inr p) = Inr p1 \<and>
      memcpy p1 ?i (map Some vs) = Inr p2 \<and>
      block_of p2 (unat ?cap) (take ?i xs @ vs @ drop ?e xs)"
  proof (cases p)
    case None
    with reserve(2) room new_size have "xs = []" "unat new_count = 0" "unat ?cap = 0"
      by (auto simp: block_of_def)
    with None sz(1) len range show ?thesis
      by (auto simp: memcpy_def block_of_def unat_eq_zero)
  next
    case (Some b)
    have "\<exists>b'. memmove (Some b) (?i + length vs) ?e (?n - ?e) = Inr (Some b') \<and>
        (\<exists>p'. memcpy (Some b') ?i (map Some vs) = Inr p' \<and>
          block_of p' (unat ?cap) (take ?i xs @ vs @ drop ?e xs))"
      by (rule splice_block)
        (use Some reserve(2) range room new_size len in \<open>auto simp: block_of_def\<close>)
    moreover have "index + old_count < array_size self \<longleftrightarrow> ?e < ?n"
      using old_end sz(1) by (simp add: word_less_nat_alt)
    ultimately show ?thesis
      using Some new_end len by (auto simp: memmove_def)
  qed
  then obtain p1 p2 where moved: "(if index + old_count < array_size self
        then memmove p (unat (index + new_count)) ?e (?n - ?e) else Inr p) = Inr p1"
      "memcpy p1 ?i (map Some vs) = Inr p2"
      "block_of p2 (unat ?cap) (take ?i xs @ vs @ drop ?e xs)"
    by blast
  have "array__splice A zero self index old_count new_count elements =
      Inr \<lparr>contents = p2, array_size = array_size self + (new_count - old_count), capacity = ?cap\<rparr>"
    unfolding array__splice_def Let_def reserve(1) prod.case old_end tail elements_are_memcpy[OF vs]
    using less(2) moved(1,2) by simp
  moreover have "array_size self + (new_count - old_count) = ?new_size"
    by simp
  ultimately show ?thesis
    using moved(3) new_size len range by (simp add: represents_block)
qed

lemma array_insert_correct:
  assumes "represents self xs" and "unat index \<le> length xs" and "Suc (length xs) < 2 ^ 32"
  shows "\<exists>self'. array_insert A zero self index x = Inr self' \<and>
    represents self' (take (unat index) xs @ x # drop (unat index) xs)"
  using array__splice_correct[OF assms(1), of index 0 1 "Some [Some x]" zero "[x]"] assms(2,3)
  by (simp add: array_insert_def elements_are_def)

lemma array_extend_correct:
  assumes "represents self xs" and "length xs + unat count < 2 ^ 32"
    and "elements_are elements zero (unat count) vs"
  shows "\<exists>self'. array_extend A zero self count elements = Inr self' \<and> represents self' (xs @ vs)"
proof -
  have "unat (array_size self) = length xs"
    using assms(1) by (simp add: represents_def)
  with array__splice_correct[OF assms(1), of "array_size self" 0 count elements zero vs] assms(2,3)
  show ?thesis by (simp add: array_extend_def)
qed

lemma array_push_all_correct:
  assumes "represents self xs" and "represents other ys" and "length xs + length ys < 2 ^ 32"
  shows "\<exists>self'. array_push_all A zero self other = Inr self' \<and> represents self' (xs @ ys)"
proof -
  have "elements_are (contents other) zero (unat (array_size other)) ys" "unat (array_size other) = length ys"
    using assms(2) by (auto simp: elements_are_def represents_def word_le_nat_alt split: option.splits)
  with array_extend_correct[OF assms(1)] assms(3) show ?thesis
    by (simp add: array_push_all_def)
qed

lemma array_assign_correct:
  assumes "represents self xs" and "represents other ys"
  shows "\<exists>self'. array_assign A self other = Inr self' \<and> represents self' ys"
proof -
  have sz: "block_of (contents self) (unat (capacity self)) []" "unat (array_size other) = length ys"
    using assms block_of_take[of _ _ xs 0] by (simp_all add: represents_block)
  let ?cap = "max (capacity self) (array_size other)"
  obtain p where reserve: "array__reserve A (contents self) (capacity self) (array_size other) = (p, ?cap)"
      "block_of p (unat ?cap) []"
    using reserve_block[OF sz(1), of "array_size other"] by auto
  have "unat (array_size other) \<le> unat ?cap"
    by (metis max.cobounded2 word_le_nat_alt)
  then obtain p' where "memcpy p 0 (map Some ys) = Inr p'" "block_of p' (unat ?cap) ys"
    using block_of_memcpy[OF reserve(2), of 0 ys] sz(2) by auto
  moreover have "read_cells (contents other) (unat (array_size other)) = Inr (map Some ys)"
    using assms(2) by (auto simp: read_cells_def represents_def word_le_nat_alt unat_eq_zero split: option.splits)
  ultimately show ?thesis
    using reserve(1) sz(2) by (auto simp: array_assign_def array__assign_def represents_block)
qed

end

section \<open>The operations that keep the block\<close>

lemma array_new_correct: "represents array_new []"
  by (simp add: represents_def array_new_def)

lemma array_clear_correct: "represents self xs \<Longrightarrow> represents (array_clear self) []"
  by (auto simp: represents_def array_clear_def split: option.splits)

lemma array_delete_correct: "represents (array_delete self) []"
  by (simp add: represents_def array_delete_def array__delete_def)

lemma array_swap_correct:
  "represents self xs \<Longrightarrow> represents other ys \<Longrightarrow> array_swap self other = (self', other') \<Longrightarrow>
     represents self' ys \<and> represents other' xs"
  by (auto simp: represents_def array_swap_def array__swap_def split: option.splits)

lemma array_get_correct:
  assumes "represents self xs"
  shows "array_get self index = (if unat index < length xs then Inr (xs ! unat index) else Inl Assert_Failed)"
  using assms block_of_read[of "contents self" "unat (capacity self)" xs "unat index"]
  by (simp add: represents_block array_get_def word_less_nat_alt)

text \<open>At the empty array the index of the last element wraps, and the \<open>assert\<close> fails.\<close>

lemma array_back_correct:
  assumes "represents self xs"
  shows "array_back self = (if xs = [] then Inl Assert_Failed else Inr (last xs))"
proof (cases "xs = []")
  case True
  with assms have "array_size self = 0"
    by (simp add: represents_def unat_eq_zero)
  with True assms show ?thesis
    by (simp add: array_back_def array_get_correct)
next
  case False
  then have "0 < array_size self" "unat (array_size self) = length xs"
    using assms by (auto simp: represents_def word_less_nat_alt)
  then have "unat (array_size self - 1) = length xs - 1"
    by (simp add: unat_minus_one)
  with False assms show ?thesis
    by (simp add: array_back_def array_get_correct last_conv_nth)
qed

lemma array_pop_correct:
  assumes "represents self xs" and "xs \<noteq> []"
  shows "\<exists>self'. array_pop self = Inr (last xs, self') \<and> represents self' (butlast xs)"
proof -
  have "unat (array_size self) = length xs" "array_size self \<noteq> 0"
    using assms by (auto simp: represents_def)
  then have sz: "unat (array_size self - 1) = length xs - 1"
    by (simp add: unat_minus_one)
  have block: "block_of (contents self) (unat (capacity self)) xs"
    using assms(1) by (simp add: represents_block)
  have "block_of (contents self) (unat (capacity self)) (butlast xs)"
    using block_of_take[OF block, of "length xs - 1"] by (simp add: butlast_conv_take)
  with block_of_read[OF block, of "length xs - 1"] sz assms(2) show ?thesis
    by (simp add: array_pop_def represents_block last_conv_nth)
qed

text \<open>
  On the empty array the size wraps to the largest \<open>uint32_t\<close>, and the read goes through the null
  pointer or beyond the block.
\<close>

lemma array_pop_empty:
  assumes rep: "represents self []"
  shows "array_pop self =
    Inl (case contents self of None \<Rightarrow> Read_Null (2 ^ 32 - 1) | Some b \<Rightarrow> Read_Outside (2 ^ 32 - 1))"
proof -
  have wrapped: "unat (-1 :: uint32) = 2 ^ 32 - 1"
    by (simp add: unsigned_minus_1_eq_mask mask_eq_exp_minus_1)
  from rep have "array_size self = 0"
    by (simp add: represents_def unat_eq_zero)
  moreover have "unat (capacity self) \<le> unat (-1 :: uint32)"
    by (simp add: word_le_nat_alt [symmetric])
  ultimately show ?thesis
    using rep wrapped by (auto simp: array_pop_def read_cell_def represents_def split: option.splits)
qed

lemma array_erase_correct:
  assumes "represents self xs"
  shows "if unat index < length xs
    then \<exists>self'. array_erase self index = Inr self' \<and>
      represents self' (take (unat index) xs @ drop (Suc (unat index)) xs)
    else array_erase self index = Inl Assert_Failed"
proof (cases "unat index < length xs")
  case False
  with assms show ?thesis
    by (simp add: array_erase_def array__erase_def represents_def word_less_nat_alt)
next
  case True
  have sz: "unat (array_size self) = length xs" "block_of (contents self) (unat (capacity self)) xs"
    using assms by (simp_all add: represents_block)
  have bound: "length xs < 2 ^ 32"
    unfolding sz(1)[symmetric] by (rule order_less_le_trans[OF unsigned_less]) simp
  have index: "index < array_size self"
    using True sz(1) by (simp add: word_less_nat_alt)
  have next_index: "unat (index + 1) = Suc (unat index)"
    using True bound by (simp add: unat_add_exact)
  have "unat (array_size self - (index + 1)) = length xs - Suc (unat index)"
    using True sz(1) next_index by (simp add: unat_sub word_le_nat_alt)
  then have count: "unat (array_size self - index - 1) = length xs - Suc (unat index)"
    by (simp add: algebra_simps)
  have "length xs - Suc 0 \<le> unat (capacity self)"
    using sz(2) by (auto simp: block_of_def)
  then obtain p' where "memmove (contents self) (unat index) (Suc (unat index)) (length xs - Suc (unat index)) = Inr p'"
      "block_of p' (unat (capacity self)) (take (unat index) xs @ drop (Suc (unat index)) xs)"
    using block_of_memmove[OF sz(2), of "Suc (unat index)" "unat index"] True by auto
  moreover have "array_size self \<noteq> 0"
    using index by auto
  then have "unat (array_size self - 1) = length xs - 1"
    using sz(1) by (simp add: unat_minus_one)
  ultimately show ?thesis
    using True index sz(1) next_index count
    by (auto simp: array_erase_def array__erase_def represents_block)
qed

section \<open>A heap that finds memory\<close>

definition heap_allocator :: "'a allocator" where
  "heap_allocator =
     \<lparr>ts_malloc = (\<lambda>n. Some (replicate n None)),
      ts_realloc = (\<lambda>b n. Some (take n b @ replicate (n - length b) None))\<rparr>"

interpretation heap: total_allocator heap_allocator
  by unfold_locales (auto simp: heap_allocator_def min_def)

end
