(* ===== verification/Sorted_Array.thy ===== *)
theory Sorted_Array
  imports Array_Correct Char_Sets
begin

text \<open>
  The sorted arrays of \<open>array.h\<close>: the binary search behind \<open>array_search_sorted_with\<close> and
  \<open>array_search_sorted_by\<close>, and the insertion that keeps an array sorted. \<open>compare\<close> is the callback;
  the locale \<open>comparator\<close> holds the laws an order needs of it.
\<close>

section \<open>The search\<close>

text \<open>The loop, with \<open>*_index\<close> and \<open>size\<close> as arguments.\<close>

function search_sorted_loop ::
  "('a \<Rightarrow> 'k \<Rightarrow> int) \<Rightarrow> 'a pointer \<Rightarrow> 'k \<Rightarrow> uint32 \<Rightarrow> uint32 \<Rightarrow> uint32 result" where
  "search_sorted_loop compare p needle index sz =
     (if 1 < sz then
        let half_size = sz div 2; mid_index = index + half_size in
        (case read_cell p (unat mid_index) of
           Inl e \<Rightarrow> Inl e
         | Inr x \<Rightarrow>
             search_sorted_loop compare p needle
               (if compare x needle \<le> 0 then mid_index else index) (sz - half_size))
      else Inr index)"
  by pat_completeness auto

termination
  by (relation "measure (\<lambda>(compare, p, needle, index, sz). unat sz)") (auto dest: half_size_less)

declare search_sorted_loop.simps [simp del]

definition array__search_sorted ::
  "('a \<Rightarrow> 'k \<Rightarrow> int) \<Rightarrow> 'a Array \<Rightarrow> uint32 \<Rightarrow> 'k \<Rightarrow> (uint32 \<times> bool) result" where
  "array__search_sorted compare self start needle =
     (let sz = array_size self - start in
      if sz = 0 then Inr (start, False)
      else
        and_then (search_sorted_loop compare (contents self) needle start sz) (\<lambda>index.
        and_then (read_cell (contents self) (unat index)) (\<lambda>x.
        let comparison = compare x needle in
        Inr (if comparison = 0 then (index, True)
             else if comparison < 0 then (index + 1, False)
             else (index, False)))))"

definition array_search_sorted_with ::
  "('a \<Rightarrow> 'k \<Rightarrow> int) \<Rightarrow> 'a Array \<Rightarrow> 'k \<Rightarrow> (uint32 \<times> bool) result" where
  "array_search_sorted_with compare self needle = array__search_sorted compare self 0 needle"

text \<open>
  \<open>_compare_int\<close>: a difference of two \<open>int\<close>s. Where it overflows, which C leaves undefined, the model
  wraps as the hardware does.
\<close>

definition compare_int :: "32 word \<Rightarrow> 32 word \<Rightarrow> int" where
  "compare_int a b = sint (a - b)"

definition array_search_sorted_by ::
  "('a \<Rightarrow> 32 word) \<Rightarrow> 'a Array \<Rightarrow> 32 word \<Rightarrow> (uint32 \<times> bool) result" where
  "array_search_sorted_by field self needle =
     array__search_sorted (\<lambda>x. compare_int (field x)) self 0 needle"

definition array_insert_sorted_with ::
  "'a allocator \<Rightarrow> 'a \<Rightarrow> ('a \<Rightarrow> 'a \<Rightarrow> int) \<Rightarrow> 'a Array \<Rightarrow> 'a \<Rightarrow> 'a Array result" where
  "array_insert_sorted_with A zero compare self x =
     and_then (array_search_sorted_with compare self x) (\<lambda>(index, exists).
     if \<not> exists then array_insert A zero self index x else Inr self)"

definition array_insert_sorted_by ::
  "'a allocator \<Rightarrow> 'a \<Rightarrow> ('a \<Rightarrow> 32 word) \<Rightarrow> 'a Array \<Rightarrow> 'a \<Rightarrow> 'a Array result" where
  "array_insert_sorted_by A zero field self x =
     and_then (array_search_sorted_by field self (field x)) (\<lambda>(index, exists).
     if \<not> exists then array_insert A zero self index x else Inr self)"

section \<open>What the search finds\<close>

text \<open>Before the needle, equal to it, after it: the elements in this order.\<close>

definition splits :: "('a \<Rightarrow> 'k \<Rightarrow> int) \<Rightarrow> 'k \<Rightarrow> 'a list \<Rightarrow> bool" where
  "splits compare needle xs \<longleftrightarrow>
     sorted_wrt (\<lambda>x y. (compare y needle \<le> 0 \<longrightarrow> compare x needle \<le> 0) \<and>
       (compare y needle < 0 \<longrightarrow> compare x needle < 0)) xs"

lemma splits_nth:
  assumes "splits compare needle xs" and "i \<le> j" and "j < length xs"
  shows "compare (xs ! j) needle \<le> 0 \<Longrightarrow> compare (xs ! i) needle \<le> 0"
    and "compare (xs ! j) needle < 0 \<Longrightarrow> compare (xs ! i) needle < 0"
  using assms by (auto simp: splits_def sorted_wrt_iff_nth_less le_less)

lemma search_sorted_loop_finds:
  assumes "block_of p n xs" and "splits compare needle xs" and "length xs < 2 ^ 32"
    and "0 < unat sz" and "unat index + unat sz \<le> length xs"
    and "0 < unat index \<Longrightarrow> compare (xs ! unat index) needle \<le> 0"
    and "\<And>j. unat index + unat sz \<le> j \<Longrightarrow> j < length xs \<Longrightarrow> 0 < compare (xs ! j) needle"
  shows "\<exists>i. search_sorted_loop compare p needle index sz = Inr i \<and> unat i < length xs \<and>
    (0 < unat i \<longrightarrow> compare (xs ! unat i) needle \<le> 0) \<and>
    (\<forall>j. unat i < j \<and> j < length xs \<longrightarrow> 0 < compare (xs ! j) needle)"
  using assms
proof (induction compare p needle index sz rule: search_sorted_loop.induct)
  case (1 compare p needle index sz)
  let ?half = "sz div 2"
  let ?mid = "index + ?half"
  note step = search_sorted_loop.simps[of compare p needle index sz]
  show ?case
  proof (cases "1 < sz")
    case False
    then have "unat sz = 1"
      using "1.prems"(4) by (simp add: word_less_nat_alt)
    with False "1.prems" show ?thesis
      by (auto simp: step)
  next
    case True
    note half = half_size_less[OF True]
    have h: "unat ?half = unat sz div 2" "0 < unat sz div 2"
      using True by (simp_all add: unat_div word_less_nat_alt)
    have mid: "unat ?mid = unat index + unat sz div 2"
      using "1.prems"(3,5) h by (subst unat_add_exact) simp_all
    have bound: "unat ?mid < length xs" "unat ?mid + (unat sz - unat sz div 2) = unat index + unat sz"
      using mid "1.prems"(5) half by linarith+
    have read: "read_cell p (unat ?mid) = Inr (xs ! unat ?mid)"
      by (rule block_of_read[OF "1.prems"(1) bound(1)])
    let ?x = "xs ! unat ?mid"
    have next_step: "search_sorted_loop compare p needle index sz =
        search_sorted_loop compare p needle (if compare ?x needle \<le> 0 then ?mid else index) (sz - ?half)"
      using True by (simp add: step read Let_def)
    have IH: "\<exists>i. search_sorted_loop compare p needle
          (if compare ?x needle \<le> 0 then ?mid else index) (sz - ?half) = Inr i \<and> unat i < length xs \<and>
        (0 < unat i \<longrightarrow> compare (xs ! unat i) needle \<le> 0) \<and>
        (\<forall>j. unat i < j \<and> j < length xs \<longrightarrow> 0 < compare (xs ! j) needle)"
    proof (rule "1.IH"[OF True refl refl read "1.prems"(1-3)])
      show "0 < unat (sz - ?half)"
        using half by simp
      show "unat (if compare ?x needle \<le> 0 then ?mid else index) + unat (sz - ?half) \<le> length xs"
        using "1.prems"(5) bound(2) mid by (auto simp: half(1))
      show "compare (xs ! unat (if compare ?x needle \<le> 0 then ?mid else index)) needle \<le> 0"
        if "0 < unat (if compare ?x needle \<le> 0 then ?mid else index)"
        using that "1.prems"(6) by (auto split: if_splits)
      show "0 < compare (xs ! j) needle"
        if j: "unat (if compare ?x needle \<le> 0 then ?mid else index) + unat (sz - ?half) \<le> j" "j < length xs"
        for j
      proof (cases "compare ?x needle \<le> 0")
        case True
        with j "1.prems"(7)[of j] bound(2) show ?thesis
          by (simp add: half(1))
      next
        case False
        with j have "unat ?mid \<le> j"
          using mid by (simp add: half(1))
        with False j splits_nth(1)[OF "1.prems"(2), of "unat ?mid" j] show ?thesis
          by linarith
      qed
    qed
    then show ?thesis
      by (simp add: next_step)
  qed
qed

text \<open>
  The index of an equal element, or the index at which everything before is smaller and everything
  from there on is greater.
\<close>

definition found_at :: "('a \<Rightarrow> 'k \<Rightarrow> int) \<Rightarrow> 'k \<Rightarrow> 'a list \<Rightarrow> nat \<Rightarrow> bool \<Rightarrow> bool" where
  "found_at compare needle xs i exists \<longleftrightarrow>
     (if exists then i < length xs \<and> compare (xs ! i) needle = 0
      else i \<le> length xs \<and> (\<forall>x \<in> set (take i xs). compare x needle < 0) \<and>
        (\<forall>x \<in> set (drop i xs). 0 < compare x needle))"

lemma array_search_sorted_correct:
  assumes "represents self xs" and "splits compare needle xs"
  shows "\<exists>i exists. array_search_sorted_with compare self needle = Inr (i, exists) \<and>
    found_at compare needle xs (unat i) exists"
proof -
  have sz: "unat (array_size self) = length xs" "block_of (contents self) (unat (capacity self)) xs"
    using assms(1) by (simp_all add: represents_block)
  show ?thesis
  proof (cases "array_size self = 0")
    case True
    with sz(1) show ?thesis
      by (auto simp: array_search_sorted_with_def array__search_sorted_def found_at_def)
  next
    case False
    have bound: "length xs < 2 ^ 32"
      unfolding sz(1)[symmetric] by (rule order_less_le_trans[OF unsigned_less]) simp
    have "0 < unat (array_size self)"
      using False by (simp add: unat_gt_0)
    then obtain i where i: "search_sorted_loop compare (contents self) needle 0 (array_size self) = Inr i"
        "unat i < length xs" "0 < unat i \<longrightarrow> compare (xs ! unat i) needle \<le> 0"
        "\<forall>j. unat i < j \<and> j < length xs \<longrightarrow> 0 < compare (xs ! j) needle"
      using search_sorted_loop_finds[OF sz(2) assms(2) bound, of "array_size self" 0] sz(1) by auto
    have read: "read_cell (contents self) (unat i) = Inr (xs ! unat i)"
      by (rule block_of_read[OF sz(2) i(2)])
    have result: "array_search_sorted_with compare self needle =
        Inr (if compare (xs ! unat i) needle = 0 then (i, True)
             else if compare (xs ! unat i) needle < 0 then (i + 1, False) else (i, False))"
      using False by (simp add: array_search_sorted_with_def array__search_sorted_def i(1) read)
    have before: "\<forall>x \<in> set (take (Suc (unat i)) xs). compare x needle < 0" if "compare (xs ! unat i) needle < 0"
      using that i(2) splits_nth(2)[OF assms(2) _ i(2)] by (auto simp: in_set_conv_nth)
    have after: "\<forall>x \<in> set (drop (Suc (unat i)) xs). 0 < compare x needle"
      using i(4) by (auto simp: in_set_conv_nth)
    have next_index: "unat (i + 1) = Suc (unat i)"
      using i(2) bound by (simp add: unat_add_exact)
    consider (equal) "compare (xs ! unat i) needle = 0" | (less) "compare (xs ! unat i) needle < 0"
      | (greater) "0 < compare (xs ! unat i) needle" by linarith
    then show ?thesis
    proof cases
      case greater
      then have "unat i = 0"
        using i(3) by auto
      moreover have "xs \<noteq> []"
        using i(2) by auto
      ultimately show ?thesis
        using greater after result by (cases xs) (auto simp: found_at_def)
    qed (use result i(2) before after next_index in \<open>auto simp: found_at_def\<close>)
  qed
qed

section \<open>Insertion\<close>

text \<open>
  The laws of a comparison on the elements \<open>D\<close> an array may hold: its sign is that of a total
  preorder.
\<close>

locale comparator =
  fixes compare :: "'a \<Rightarrow> 'a \<Rightarrow> int" and D :: "'a set"
  assumes compare_sign: "x \<in> D \<Longrightarrow> y \<in> D \<Longrightarrow> compare x y < 0 \<longleftrightarrow> 0 < compare y x"
    and compare_trans: "x \<in> D \<Longrightarrow> y \<in> D \<Longrightarrow> z \<in> D \<Longrightarrow>
      compare x y \<le> 0 \<Longrightarrow> compare y z \<le> 0 \<Longrightarrow> compare x z \<le> 0"
begin

definition strictly_sorted :: "'a list \<Rightarrow> bool" where
  "strictly_sorted xs \<longleftrightarrow> sorted_wrt (\<lambda>x y. compare x y < 0) xs"

lemma compare_less_trans:
  assumes "x \<in> D" "y \<in> D" "z \<in> D" "compare x y < 0" "compare y z \<le> 0"
  shows "compare x z < 0"
proof (rule ccontr)
  assume "\<not> compare x z < 0"
  then have "compare z x \<le> 0"
    using compare_sign[of z x] compare_sign[of x z] assms(1,3) by force
  with assms compare_trans[of y z x] have "compare y x \<le> 0"
    by simp
  with assms compare_sign[of x y] show False
    by simp
qed

lemma strictly_sorted_splits:
  assumes "strictly_sorted xs" and "set xs \<subseteq> D" and "k \<in> D"
  shows "splits compare k xs"
  unfolding splits_def
proof (rule sorted_wrt_mono_rel[of _ "\<lambda>x y. compare x y < 0"])
  fix x y
  assume xy: "x \<in> set xs" "y \<in> set xs" "compare x y < 0"
  then have "x \<in> D" "y \<in> D"
    using assms(2) by auto
  with xy(3) assms(3) compare_less_trans[of x y k]
  show "(compare y k \<le> 0 \<longrightarrow> compare x k \<le> 0) \<and> (compare y k < 0 \<longrightarrow> compare x k < 0)"
    by auto
qed (use assms(1) in \<open>simp add: strictly_sorted_def\<close>)

lemma strictly_sorted_insert:
  assumes "strictly_sorted xs" and "set xs \<subseteq> D" and "x \<in> D"
    and "found_at compare x xs i False"
  shows "strictly_sorted (take i xs @ x # drop i xs)"
proof -
  have "sorted_wrt (\<lambda>x y. compare x y < 0) (take i xs) \<and> sorted_wrt (\<lambda>x y. compare x y < 0) (drop i xs) \<and>
      (\<forall>x \<in> set (take i xs). \<forall>y \<in> set (drop i xs). compare x y < 0)"
    using assms(1) unfolding strictly_sorted_def by (metis append_take_drop_id sorted_wrt_append)
  moreover have "compare x y < 0" if "y \<in> set (drop i xs)" for y
    using that assms(2-4) compare_sign[of x y] by (auto simp: found_at_def dest: in_set_dropD)
  ultimately show ?thesis
    using assms(4) by (auto simp: strictly_sorted_def sorted_wrt_append found_at_def)
qed

text \<open>
  The insertion keeps the array strictly sorted, adds the value when no element compares equal to it
  and changes nothing otherwise.
\<close>

lemma array_insert_sorted_with_correct:
  assumes "total_allocator A" and "represents self xs" and "strictly_sorted xs"
    and "set xs \<subseteq> D" and "x \<in> D" and "Suc (length xs) < 2 ^ 32"
  shows "\<exists>self' ys. array_insert_sorted_with A zero compare self x = Inr self' \<and>
    represents self' ys \<and> strictly_sorted ys \<and>
    set ys = (if \<exists>y \<in> set xs. compare y x = 0 then set xs else insert x (set xs))"
proof -
  obtain i exists where found: "array_search_sorted_with compare self x = Inr (i, exists)"
      "found_at compare x xs (unat i) exists"
    using array_search_sorted_correct[OF assms(2) strictly_sorted_splits[OF assms(3-5)]] by blast
  show ?thesis
  proof (cases exists)
    case True
    with found(2) have "\<exists>y \<in> set xs. compare y x = 0"
      by (auto simp: found_at_def)
    with True found(1) assms(2,3) show ?thesis
      by (auto simp: array_insert_sorted_with_def)
  next
    case False
    with found(2) have place: "found_at compare x xs (unat i) False" "unat i \<le> length xs"
      by (simp_all add: found_at_def)
    have no_equal: "\<not> (\<exists>y \<in> set xs. compare y x = 0)"
      using place(1) by (auto simp: found_at_def in_set_conv_nth) 
        (metis append_take_drop_id in_set_conv_nth Un_iff less_irrefl set_append)
    obtain self' where "array_insert A zero self i x = Inr self'"
        "represents self' (take (unat i) xs @ x # drop (unat i) xs)"
      using total_allocator.array_insert_correct[OF assms(1,2) place(2) assms(6)] by blast
    moreover have "set (take (unat i) xs @ x # drop (unat i) xs) = insert x (set xs)"
      by (metis (no_types) Un_insert_right append_take_drop_id list.simps(15) set_append)
    ultimately show ?thesis
      using strictly_sorted_insert[OF assms(3-5) place(1)] no_equal False found(1)
      by (auto simp: array_insert_sorted_with_def)
  qed
qed

end

section \<open>The comparison of integers\<close>

text \<open>The difference of two \<open>int\<close>s of which neither needs the last bit does not overflow.\<close>

definition half_range :: "32 word set" where
  "half_range = {a. - (2 ^ 30) \<le> sint a \<and> sint a < 2 ^ 30}"

lemma compare_int_exact:
  assumes "- (2 ^ 31) \<le> sint a - sint b" and "sint a - sint b < 2 ^ 31"
  shows "compare_int a b = sint a - sint b"
proof -
  have "a - b = word_of_int (sint a - sint b)"
    by simp
  then have "sint (a - b) = signed_take_bit 31 (sint a - sint b)"
    by (simp only: signed_of_int) simp
  then show ?thesis
    unfolding compare_int_def using assms by (simp add: signed_take_bit_int_eq_self)
qed

interpretation ints: comparator compare_int half_range
  by unfold_locales (auto simp: half_range_def compare_int_exact)

end
