(* ===== verification/Array_Properties.thy ===== *)
theory Array_Properties
  imports Sorted_Array
begin

text \<open>
  The properties of the growable array. The interface \<open>growable\<close> is what a client that only pushes
  needs of it.
\<close>

section \<open>Building an array\<close>

text \<open>
  \<open>rep\<close> relates a container to the list it holds, \<open>push\<close> is defined below a limit and appends, and
  \<open>room\<close> bounds what a container of so many elements has allocated.
\<close>

locale growable =
  fixes rep :: "'s \<Rightarrow> 'a list \<Rightarrow> bool" and empty :: 's and push :: "'s \<Rightarrow> 'a \<Rightarrow> fault + 's"
    and allocated :: "'s \<Rightarrow> nat" and room :: "nat \<Rightarrow> nat" and limit :: nat
  assumes rep_empty: "rep empty []" and allocated_empty: "allocated empty \<le> room 0"
    and push: "rep s xs \<Longrightarrow> Suc (length xs) < limit \<Longrightarrow> allocated s \<le> room (length xs) \<Longrightarrow>
      \<exists>s'. push s x = Inr s' \<and> rep s' (xs @ [x]) \<and> allocated s' \<le> room (Suc (length xs))"
begin

definition build :: "'a list \<Rightarrow> fault + 's" where
  "build xs = fold (\<lambda>x s. and_then s (\<lambda>s. push s x)) xs (Inr empty)"

lemma build_rep:
  "length xs < limit \<Longrightarrow> \<exists>s. build xs = Inr s \<and> rep s xs \<and> allocated s \<le> room (length xs)"
proof (induction xs rule: rev_induct)
  case Nil
  then show ?case using rep_empty allocated_empty by (simp add: build_def)
next
  case (snoc x xs)
  then obtain s where "build xs = Inr s" "rep s xs" "allocated s \<le> room (length xs)"
    by auto
  with push[of s xs x] snoc.prems show ?case
    by (auto simp: build_def)
qed

end

definition push_each :: "'a allocator \<Rightarrow> 'a list \<Rightarrow> 'a Array result" where
  "push_each A xs = fold (\<lambda>x self. and_then self (\<lambda>self. array_push A self x)) xs (Inr array_new)"

definition array_room :: "nat \<Rightarrow> nat" where
  "array_room n = max 8 (2 * n)"

lemma grown_capacity_room:
  assumes "unat cap \<le> n" and "unat new_size = Suc n"
  shows "unat (grown_capacity cap new_size) \<le> array_room (Suc n)"
proof -
  have "unat (cap * 2) \<le> 2 * unat cap"
    by (metis mult.commute mult_2 unat_plus_simple unat_word_ariths(1) mult_2_right mod_less_eq_dividend)
  then show ?thesis
    using assms by (auto simp: grown_capacity_def array_room_def Let_def)
qed

lemma grow_capacity:
  "snd (array__grow A p sz cap count) =
     (if cap < sz + count then grown_capacity cap (sz + count) else cap)"
proof -
  have "cap < grown_capacity cap (sz + count)" if "cap < sz + count"
    using that order_less_le_trans by (fastforce simp: grown_capacity_def Let_def)
  then show ?thesis
    by (simp add: array__grow_def array__reserve_def Let_def)
qed

lemma array_push_capacity:
  assumes "array_push A self x = Inr self'"
  shows "capacity self' = (if capacity self < array_size self + 1
    then grown_capacity (capacity self) (array_size self + 1) else capacity self)"
  using assms grow_capacity[of A "contents self" "array_size self" "capacity self" 1]
  by (auto simp: array_push_def and_then_Inr split: prod.splits)

lemma array_push_room:
  assumes "array_push A self x = Inr self'" and "represents self xs" and "Suc (length xs) < 2 ^ 32"
    and "unat (capacity self) \<le> array_room (length xs)"
  shows "unat (capacity self') \<le> array_room (Suc (length xs))"
proof -
  have sz: "unat (array_size self + 1) = Suc (length xs)"
    using assms(2,3) by (simp add: represents_def unat_add_exact)
  show ?thesis
  proof (cases "capacity self < array_size self + 1")
    case True
    then have "unat (capacity self) \<le> length xs"
      using sz by (simp add: word_less_nat_alt)
    with True sz array_push_capacity[OF assms(1)] show ?thesis
      by (simp add: grown_capacity_room)
  next
    case False
    with array_push_capacity[OF assms(1)] assms(4) show ?thesis
      by (simp add: array_room_def)
  qed
qed

lemma array_growable:
  fixes A :: "'a allocator"
  assumes "total_allocator A"
  shows "growable represents array_new (array_push A) (\<lambda>self. unat (capacity self)) array_room (2 ^ 32)"
proof
  show "represents array_new []"
    by (rule array_new_correct)
  show "unat (capacity array_new) \<le> array_room 0"
    by (simp add: array_new_def)
  fix self :: "'a Array" and xs x
  assume prems: "represents self xs" "Suc (length xs) < 2 ^ 32" "unat (capacity self) \<le> array_room (length xs)"
  then obtain self' where "array_push A self x = Inr self'" "represents self' (xs @ [x])"
    using total_allocator.array_push_correct[OF assms prems(1,2)] by blast
  with array_push_room[OF _ prems] show "\<exists>self'. array_push A self x = Inr self' \<and>
      represents self' (xs @ [x]) \<and> unat (capacity self') \<le> array_room (Suc (length xs))"
    by blast
qed

interpretation heap_array: growable represents array_new "array_push heap_allocator"
    "\<lambda>self. unat (capacity self)" array_room "2 ^ 32"
  by (rule array_growable[OF heap.total_allocator_axioms])

text \<open>
  C34. Pushed one by one on a new array, fewer than 2^32 elements are the list the array holds, and
  the array has never more room than twice their number, or 8, although the doubling of its capacity
  wraps past 2^31.
\<close>

theorem array_built_by_pushes:
  assumes "total_allocator A" and "length xs < 2 ^ 32"
  shows "\<exists>self. push_each A xs = Inr self \<and> represents self xs \<and>
    unat (capacity self) \<le> max 8 (2 * length xs)"
  using growable.build_rep[OF array_growable[OF assms(1)] assms(2)]
  by (simp add: growable.build_def[OF array_growable[OF assms(1)]] push_each_def array_room_def)

theorem array_built_by_pushes_witness:
  "\<exists>self. push_each heap_allocator [3, 1, 2 :: int] = Inr self \<and> represents self [3, 1, 2] \<and>
    unat (capacity self) \<le> 8"
  using array_built_by_pushes[OF heap.total_allocator_axioms, of "[3, 1, 2 :: int]"] by simp

section \<open>Splicing and erasing\<close>

text \<open>
  C33. \<open>array_splice\<close> replaces \<open>old_count\<close> elements at \<open>index\<close> by the \<open>new_count\<close> elements it is
  given, or by as many zeros for the null pointer; the move of the tail and the copy stay inside the
  block, grown first when it must be.
\<close>

theorem array_splice_replaces:
  assumes "total_allocator A" and "represents self xs"
    and "unat index + unat old_count \<le> length xs"
    and "length xs - unat old_count + unat new_count < 2 ^ 32"
    and "elements_are elements zero (unat new_count) vs"
  shows "\<exists>self'. array_splice A zero self index old_count new_count elements = Inr self' \<and>
    represents self' (take (unat index) xs @ vs @ drop (unat index + unat old_count) xs)"
  unfolding array_splice_def
  by (rule total_allocator.array__splice_correct[OF assms])

definition sample_array :: "int Array" where
  "sample_array =
     \<lparr>contents = Some [Some 1, Some 5, Some 9, None], array_size = 3, capacity = 4\<rparr>"

lemma sample_represents: "represents sample_array [1, 5, 9]"
  by (simp add: represents_def sample_array_def)

theorem array_splice_replaces_witness:
  "\<exists>self'. array_splice heap_allocator 0 sample_array 1 1 3 (Some [Some 2, Some 3, Some 4]) = Inr self' \<and>
    represents self' [1, 2, 3, 4, 9]"
  using array_splice_replaces[OF heap.total_allocator_axioms sample_represents, of 1 1 3
      "Some [Some 2, Some 3, Some 4]" 0 "[2, 3, 4]"]
  by (simp add: elements_are_def)

text \<open>
  C37. \<open>array_erase\<close> removes the element at an index inside the array and keeps the order of the
  others; at an index outside, its \<open>assert\<close> fails.
\<close>

theorem array_erase_removes:
  assumes "represents self xs"
  shows "if unat index < length xs
    then \<exists>self'. array_erase self index = Inr self' \<and>
      represents self' (take (unat index) xs @ drop (Suc (unat index)) xs)
    else array_erase self index = Inl Assert_Failed"
  by (rule array_erase_correct[OF assms])

theorem array_erase_removes_witness:
  "(\<exists>self'. array_erase sample_array 0 = Inr self' \<and> represents self' [5, 9]) \<and>
   array_erase sample_array 3 = Inl Assert_Failed"
  using array_erase_removes[OF sample_represents, of 0] array_erase_removes[OF sample_represents, of 3]
  by simp

text \<open>
  C38. \<open>array_back\<close> reads and \<open>array_pop\<close> removes the last element. On an empty array, where the size
  minus one wraps, the \<open>assert\<close> of \<open>array_back\<close> fails, while \<open>array_pop\<close>, which checks nothing, reads at
  the index 2^32 - 1: through the null pointer when nothing was ever allocated, outside the block
  otherwise.
\<close>

theorem array_pop_takes_last:
  assumes "represents self xs"
  shows "if xs = []
    then array_back self = Inl Assert_Failed \<and>
      array_pop self =
        Inl (case contents self of None \<Rightarrow> Read_Null (2 ^ 32 - 1) | Some b \<Rightarrow> Read_Outside (2 ^ 32 - 1))
    else array_back self = Inr (last xs) \<and>
      (\<exists>self'. array_pop self = Inr (last xs, self') \<and> represents self' (butlast xs))"
  using array_back_correct[OF assms] array_pop_correct[OF assms] array_pop_empty assms by auto

theorem array_pop_takes_last_witness:
  "(\<exists>self'. array_pop sample_array = Inr (9, self') \<and> represents self' [1, 5]) \<and>
   array_pop (array_new :: int Array) = Inl (Read_Null (2 ^ 32 - 1)) \<and>
   array_back (array_clear sample_array) = Inl Assert_Failed \<and>
   array_pop (array_clear sample_array) = Inl (Read_Outside (2 ^ 32 - 1))"
proof (intro conjI)
  show "\<exists>self'. array_pop sample_array = Inr (9, self') \<and> represents self' [1, 5]"
    using array_pop_takes_last[OF sample_represents] by simp
  show "array_pop (array_new :: int Array) = Inl (Read_Null (2 ^ 32 - 1))"
    using array_pop_takes_last[of "array_new :: int Array" "[]"] by (simp add: array_new_correct) (simp add: array_new_def)
  note cleared = array_pop_takes_last[OF array_clear_correct[OF sample_represents]]
  from cleared show "array_back (array_clear sample_array) = Inl Assert_Failed"
    by simp
  from cleared show "array_pop (array_clear sample_array) = Inl (Read_Outside (2 ^ 32 - 1))"
    by (simp add: array_clear_def sample_array_def)
qed

text \<open>
  \<open>array_push_all\<close> appends the elements of another array, \<open>array_assign\<close> makes the array hold
  them alone, and \<open>array_swap\<close> exchanges two arrays, whatever their capacities.
\<close>

lemma two_arrays:
  assumes "total_allocator A" and "represents self xs" and "represents other ys"
    and "length xs + length ys < 2 ^ 32"
  shows "(\<exists>self'. array_push_all A zero self other = Inr self' \<and> represents self' (xs @ ys)) \<and>
    (\<exists>self'. array_assign A self other = Inr self' \<and> represents self' ys) \<and>
    represents (fst (array_swap self other)) ys \<and> represents (snd (array_swap self other)) xs"
  using total_allocator.array_push_all_correct[OF assms] total_allocator.array_assign_correct[OF assms(1-3)]
    array_swap_correct[OF assms(2,3) prod.collapse[symmetric]] by blast

text \<open>
  C39. No call checks that memory was found: a push on a full array writes the new element through
  the null pointer, at the index after the last, when the allocator returns it.
\<close>

theorem array_push_without_memory:
  assumes "represents self xs" and "array_size self = capacity self" and "Suc (length xs) < 2 ^ 32"
    and "ts_malloc A = (\<lambda>n. None)" and "ts_realloc A = (\<lambda>b n. None)"
  shows "array_push A self x = Inl (Write_Null (length xs))"
proof -
  have sz: "unat (array_size self + 1) = Suc (length xs)" "unat (array_size self) = length xs"
    using assms(1,3) by (simp_all add: represents_def unat_add_exact)
  then have "capacity self < array_size self + 1"
    using assms(2) by (simp add: word_less_nat_alt)
  moreover from this have "capacity self < grown_capacity (capacity self) (array_size self + 1)"
    using order_less_le_trans by (fastforce simp: grown_capacity_def Let_def)
  ultimately have "fst (array__grow A (contents self) (array_size self) (capacity self) 1) = None"
    using assms(4,5) by (simp add: array__grow_def array__reserve_def Let_def split: option.splits)
  then show ?thesis
    using sz(2) by (cases "array__grow A (contents self) (array_size self) (capacity self) 1")
      (simp add: array_push_def write_cell_def memcpy_def)
qed

theorem array_push_without_memory_witness:
  "array_push \<lparr>ts_malloc = (\<lambda>n. None), ts_realloc = (\<lambda>b n. None)\<rparr> (array_new :: int Array) 7 =
     Inl (Write_Null 0)"
  using array_push_without_memory[OF array_new_correct, of "\<lparr>ts_malloc = (\<lambda>n. None), ts_realloc = (\<lambda>b n. None)\<rparr>" 7]
  by (simp add: array_new_def)

section \<open>Sorted arrays\<close>

text \<open>
  C36. The binary search returns, for every array in which the elements before the needle, equal to
  it and after it come in this order, the index of an element equal to it, or else the index that
  separates the smaller from the greater; it never reads outside the array.
\<close>

theorem array_search_sorted_finds:
  assumes "represents self xs" and "splits compare needle xs"
  shows "\<exists>i exists. array_search_sorted_with compare self needle = Inr (i, exists) \<and>
    found_at compare needle xs (unat i) exists"
  by (rule array_search_sorted_correct[OF assms])

theorem array_search_sorted_finds_witness:
  "\<exists>i exists. array_search_sorted_with (-) sample_array 5 = Inr (i, exists) \<and>
    found_at (-) 5 [1, 5, 9 :: int] (unat i) exists"
  using array_search_sorted_finds[OF sample_represents, of "(-)" 5] by (simp add: splits_def)

text \<open>
  C35. With a comparison that orders the elements, \<open>array_insert_sorted_with\<close> keeps a strictly sorted
  array strictly sorted: it adds the value when no element compares equal to it and changes nothing
  otherwise.
\<close>

theorem array_insert_sorted_keeps_order:
  assumes "comparator compare D" and "total_allocator A" and "represents self xs"
    and "sorted_wrt (\<lambda>x y. compare x y < 0) xs"
    and "set xs \<subseteq> D" and "x \<in> D" and "Suc (length xs) < 2 ^ 32"
  shows "\<exists>self' ys. array_insert_sorted_with A zero compare self x = Inr self' \<and>
    represents self' ys \<and> sorted_wrt (\<lambda>x y. compare x y < 0) ys \<and>
    set ys = (if \<exists>y \<in> set xs. compare y x = 0 then set xs else insert x (set xs))"
  using comparator.array_insert_sorted_with_correct[OF assms(1-3) _ assms(5-7)] assms(4)
  unfolding comparator.strictly_sorted_def[OF assms(1)] by blast

definition sample_words :: "32 word Array" where
  "sample_words =
     \<lparr>contents = Some [Some (-4), Some 0, Some 8], array_size = 3, capacity = 3\<rparr>"

theorem array_insert_sorted_keeps_order_witness:
  "\<exists>self' ys. array_insert_sorted_with heap_allocator 0 compare_int sample_words 3 = Inr self' \<and>
    represents self' ys \<and> sorted_wrt (\<lambda>x y. compare_int x y < 0) ys \<and> set ys = {-4, 0, 3, 8}"
proof -
  have "represents sample_words [-4, 0, 8]"
    by (simp add: represents_def sample_words_def)
  from array_insert_sorted_keeps_order[OF ints.comparator_axioms heap.total_allocator_axioms this, of 3]
  show ?thesis
    by (simp add: half_range_def compare_int_def insert_commute)
qed

text \<open>
  C40. \<open>_compare_int\<close> is the difference of its arguments exactly when that fits into an \<open>int\<close>; for
  integers further apart than 2^31 - 1 its sign is the wrong one.
\<close>

theorem compare_int_exact_iff:
  "(compare_int a b = sint a - sint b) = (sint a - sint b \<in> {- (2 ^ 31)..<2 ^ 31}) \<and>
   (compare_int a b < 0) = ((sint a < sint b) = (sint a - sint b \<in> {- (2 ^ 31)..<2 ^ 31}))"
proof -
  let ?d = "sint a - sint b"
  have bounds: "- (2 ^ 31) \<le> sint x \<and> sint x < 2 ^ 31" for x :: "32 word"
    using sint_ge[of x] sint_lt[of x] by simp
  have "a - b = word_of_int ?d"
    by simp
  then have wrapped: "compare_int a b = (?d + 2 ^ 31) mod 2 ^ 32 - 2 ^ 31"
    unfolding compare_int_def by (simp only: int_word_sint) simp
  consider (fits) "?d \<in> {- (2 ^ 31)..<2 ^ 31}" | (above) "2 ^ 31 \<le> ?d" | (below) "?d < - (2 ^ 31)"
    by fastforce
  then show ?thesis
  proof cases
    case fits
    then show ?thesis by (simp add: compare_int_exact)
  next
    case above
    then have "(?d + 2 ^ 31) mod 2 ^ 32 = ?d + 2 ^ 31 - 2 ^ 32"
      using bounds[of a] bounds[of b] minus_mod_self2[of "?d + 2 ^ 31" "2 ^ 32"]
        mod_pos_pos_trivial[of "?d + 2 ^ 31 - 2 ^ 32" "2 ^ 32"] by simp
    with wrapped above bounds[of a] bounds[of b] show ?thesis by auto
  next
    case below
    then have "(?d + 2 ^ 31) mod 2 ^ 32 = ?d + 2 ^ 31 + 2 ^ 32"
      using bounds[of a] bounds[of b] mod_add_self2[of "?d + 2 ^ 31" "2 ^ 32"]
        mod_pos_pos_trivial[of "?d + 2 ^ 31 + 2 ^ 32" "2 ^ 32"] by simp
    with wrapped below bounds[of a] bounds[of b] show ?thesis by auto
  qed
qed

end
