(* ===== verification/Symbols.thy ===== *)
theory Symbols
  imports Rk_Prelude
begin

text \<open>
  The tokens of \<open>enum ts_symbol_identifiers\<close> in \<open>src/crates/tree-sitter/src/parser.c\<close>: the numbers
  below \<open>TOKEN_COUNT\<close>, which the lexers accept and the scanner's tokens map to, under their C
  names. \<open>ts_builtin_sym_end\<close> is the end of the input. The numbers above are the non-terminals.
\<close>

definition ts_builtin_sym_end :: TSSymbol where "ts_builtin_sym_end = 0"
definition sym_identifier :: TSSymbol where "sym_identifier = 1"
definition aux_sym_ERR_implements_before_extends_token1 :: TSSymbol where "aux_sym_ERR_implements_before_extends_token1 = 2"
definition aux_sym_ERR_extends_multiple_times_token1 :: TSSymbol where "aux_sym_ERR_extends_multiple_times_token1 = 3"
definition aux_sym_ERR_doubled_qualifier_token1 :: TSSymbol where "aux_sym_ERR_doubled_qualifier_token1 = 4"
definition aux_sym_ERR_doubled_qualifier_token2 :: TSSymbol where "aux_sym_ERR_doubled_qualifier_token2 = 5"
definition aux_sym_ERR_doubled_retain_token1 :: TSSymbol where "aux_sym_ERR_doubled_retain_token1 = 6"
definition aux_sym_ERR_invalid_edge_qualifier_token1 :: TSSymbol where "aux_sym_ERR_invalid_edge_qualifier_token1 = 7"
definition anon_sym_COLON_EQ :: TSSymbol where "anon_sym_COLON_EQ = 8"
definition anon_sym_EQ :: TSSymbol where "anon_sym_EQ = 9"
definition anon_sym_COLON :: TSSymbol where "anon_sym_COLON = 10"
definition anon_sym_EQ_GT :: TSSymbol where "anon_sym_EQ_GT = 11"
definition aux_sym_ERR_unexpected_this_in_path_token1 :: TSSymbol where "aux_sym_ERR_unexpected_this_in_path_token1 = 12"
definition aux_sym_ERR_unexpected_super_in_path_token1 :: TSSymbol where "aux_sym_ERR_unexpected_super_in_path_token1 = 13"
definition anon_sym_COMMA :: TSSymbol where "anon_sym_COMMA = 14"
definition aux_sym_ERR_single_after_interval_token1 :: TSSymbol where "aux_sym_ERR_single_after_interval_token1 = 15"
definition aux_sym_ERR_interval_after_priority_token1 :: TSSymbol where "aux_sym_ERR_interval_after_priority_token1 = 16"
definition sym_line_comment :: TSSymbol where "sym_line_comment = 17"
definition anon_sym_LBRACE :: TSSymbol where "anon_sym_LBRACE = 18"
definition anon_sym_extern :: TSSymbol where "anon_sym_extern = 19"
definition anon_sym_RBRACE :: TSSymbol where "anon_sym_RBRACE = 20"
definition anon_sym_LPAREN :: TSSymbol where "anon_sym_LPAREN = 21"
definition anon_sym_params :: TSSymbol where "anon_sym_params = 22"
definition anon_sym_RPAREN :: TSSymbol where "anon_sym_RPAREN = 23"
definition anon_sym_result :: TSSymbol where "anon_sym_result = 24"
definition anon_sym_wasm :: TSSymbol where "anon_sym_wasm = 25"
definition sym_pragma_string :: TSSymbol where "sym_pragma_string = 26"
definition anon_sym_warn :: TSSymbol where "anon_sym_warn = 27"
definition anon_sym_info :: TSSymbol where "anon_sym_info = 28"
definition anon_sym_allow :: TSSymbol where "anon_sym_allow = 29"
definition aux_sym_test_pragma_token1 :: TSSymbol where "aux_sym_test_pragma_token1 = 30"
definition aux_sym_once_pragma_token1 :: TSSymbol where "aux_sym_once_pragma_token1 = 31"
definition aux_sym_must_call_pragma_token1 :: TSSymbol where "aux_sym_must_call_pragma_token1 = 32"
definition aux_sym_export_pragma_token1 :: TSSymbol where "aux_sym_export_pragma_token1 = 33"
definition anon_sym_POUND :: TSSymbol where "anon_sym_POUND = 34"
definition sym_unsigned_int :: TSSymbol where "sym_unsigned_int = 35"
definition sym__explicit_signed_int :: TSSymbol where "sym__explicit_signed_int = 36"
definition sym_binary_int :: TSSymbol where "sym_binary_int = 37"
definition sym_octal_int :: TSSymbol where "sym_octal_int = 38"
definition sym_hex_int :: TSSymbol where "sym_hex_int = 39"
definition sym__explicit_signed_real :: TSSymbol where "sym__explicit_signed_real = 40"
definition sym_real_value :: TSSymbol where "sym_real_value = 41"
definition aux_sym_bool_literal_with_string_token1 :: TSSymbol where "aux_sym_bool_literal_with_string_token1 = 42"
definition aux_sym_bool_literal_with_string_token2 :: TSSymbol where "aux_sym_bool_literal_with_string_token2 = 43"
definition aux_sym_bool_literal_with_string_token3 :: TSSymbol where "aux_sym_bool_literal_with_string_token3 = 44"
definition anon_sym_0 :: TSSymbol where "anon_sym_0 = 45"
definition anon_sym_1 :: TSSymbol where "anon_sym_1 = 46"
definition sym_s_byte_char_str :: TSSymbol where "sym_s_byte_char_str = 47"
definition sym_d_byte_char_str :: TSSymbol where "sym_d_byte_char_str = 48"
definition aux_sym_time_token1 :: TSSymbol where "aux_sym_time_token1 = 49"
definition anon_sym_PLUS :: TSSymbol where "anon_sym_PLUS = 50"
definition anon_sym_DASH :: TSSymbol where "anon_sym_DASH = 51"
definition aux_sym_ltime_token1 :: TSSymbol where "aux_sym_ltime_token1 = 52"
definition sym_time_value :: TSSymbol where "sym_time_value = 53"
definition aux_sym_tod_token1 :: TSSymbol where "aux_sym_tod_token1 = 54"
definition aux_sym_ltod_token1 :: TSSymbol where "aux_sym_ltod_token1 = 55"
definition sym_daytime :: TSSymbol where "sym_daytime = 56"
definition aux_sym_short_date_token1 :: TSSymbol where "aux_sym_short_date_token1 = 57"
definition aux_sym_long_date_token1 :: TSSymbol where "aux_sym_long_date_token1 = 58"
definition aux_sym_date_literal_token1 :: TSSymbol where "aux_sym_date_literal_token1 = 59"
definition aux_sym_short_date_and_time_token1 :: TSSymbol where "aux_sym_short_date_and_time_token1 = 60"
definition aux_sym_long_date_and_time_token1 :: TSSymbol where "aux_sym_long_date_and_time_token1 = 61"
definition aux_sym_sign_int_type_name_token1 :: TSSymbol where "aux_sym_sign_int_type_name_token1 = 62"
definition aux_sym_sign_int_type_name_token2 :: TSSymbol where "aux_sym_sign_int_type_name_token2 = 63"
definition aux_sym_sign_int_type_name_token3 :: TSSymbol where "aux_sym_sign_int_type_name_token3 = 64"
definition aux_sym_sign_int_type_name_token4 :: TSSymbol where "aux_sym_sign_int_type_name_token4 = 65"
definition aux_sym_unsign_int_type_name_token1 :: TSSymbol where "aux_sym_unsign_int_type_name_token1 = 66"
definition aux_sym_unsign_int_type_name_token2 :: TSSymbol where "aux_sym_unsign_int_type_name_token2 = 67"
definition aux_sym_unsign_int_type_name_token3 :: TSSymbol where "aux_sym_unsign_int_type_name_token3 = 68"
definition aux_sym_unsign_int_type_name_token4 :: TSSymbol where "aux_sym_unsign_int_type_name_token4 = 69"
definition aux_sym_real_type_name_token1 :: TSSymbol where "aux_sym_real_type_name_token1 = 70"
definition aux_sym_real_type_name_token2 :: TSSymbol where "aux_sym_real_type_name_token2 = 71"
definition aux_sym_string_name_token1 :: TSSymbol where "aux_sym_string_name_token1 = 72"
definition anon_sym_LBRACK :: TSSymbol where "anon_sym_LBRACK = 73"
definition anon_sym_RBRACK :: TSSymbol where "anon_sym_RBRACK = 74"
definition aux_sym_char_name_token1 :: TSSymbol where "aux_sym_char_name_token1 = 75"
definition sym_time_type_name :: TSSymbol where "sym_time_type_name = 76"
definition sym_l_time_type_name :: TSSymbol where "sym_l_time_type_name = 77"
definition sym_date_type_name :: TSSymbol where "sym_date_type_name = 78"
definition sym_l_date_type_name :: TSSymbol where "sym_l_date_type_name = 79"
definition sym_tod_type_name :: TSSymbol where "sym_tod_type_name = 80"
definition sym_ltod_type_name :: TSSymbol where "sym_ltod_type_name = 81"
definition sym_dt_type_name :: TSSymbol where "sym_dt_type_name = 82"
definition sym_l_dt_type_name :: TSSymbol where "sym_l_dt_type_name = 83"
definition aux_sym_bit_str_type_name_token1 :: TSSymbol where "aux_sym_bit_str_type_name_token1 = 84"
definition aux_sym_multibits_type_name_token1 :: TSSymbol where "aux_sym_multibits_type_name_token1 = 85"
definition aux_sym_multibits_type_name_token2 :: TSSymbol where "aux_sym_multibits_type_name_token2 = 86"
definition aux_sym_multibits_type_name_token3 :: TSSymbol where "aux_sym_multibits_type_name_token3 = 87"
definition aux_sym_multibits_type_name_token4 :: TSSymbol where "aux_sym_multibits_type_name_token4 = 88"
definition aux_sym_data_type_decl_token1 :: TSSymbol where "aux_sym_data_type_decl_token1 = 89"
definition anon_sym_SEMI :: TSSymbol where "anon_sym_SEMI = 90"
definition aux_sym_data_type_decl_token2 :: TSSymbol where "aux_sym_data_type_decl_token2 = 91"
definition anon_sym_DOT_DOT :: TSSymbol where "anon_sym_DOT_DOT = 92"
definition aux_sym_array_type_spec_token1 :: TSSymbol where "aux_sym_array_type_spec_token1 = 93"
definition aux_sym_array_type_spec_token2 :: TSSymbol where "aux_sym_array_type_spec_token2 = 94"
definition aux_sym_struct_type_spec_token1 :: TSSymbol where "aux_sym_struct_type_spec_token1 = 95"
definition aux_sym_struct_type_spec_token2 :: TSSymbol where "aux_sym_struct_type_spec_token2 = 96"
definition aux_sym_struct_type_spec_token3 :: TSSymbol where "aux_sym_struct_type_spec_token3 = 97"
definition aux_sym_relative_located_at_token1 :: TSSymbol where "aux_sym_relative_located_at_token1 = 98"
definition anon_sym_PERCENT :: TSSymbol where "anon_sym_PERCENT = 99"
definition anon_sym_STAR :: TSSymbol where "anon_sym_STAR = 100"
definition anon_sym_DOT :: TSSymbol where "anon_sym_DOT = 101"
definition aux_sym_ref_type_spec_token1 :: TSSymbol where "aux_sym_ref_type_spec_token1 = 102"
definition aux_sym_ref_value_token1 :: TSSymbol where "aux_sym_ref_value_token1 = 103"
definition aux_sym_ref_addr_token1 :: TSSymbol where "aux_sym_ref_addr_token1 = 104"
definition anon_sym_CARET :: TSSymbol where "anon_sym_CARET = 105"
definition aux_sym_input_decls_token1 :: TSSymbol where "aux_sym_input_decls_token1 = 106"
definition aux_sym_input_decls_token2 :: TSSymbol where "aux_sym_input_decls_token2 = 107"
definition anon_sym_DOT_DOT_DOT :: TSSymbol where "anon_sym_DOT_DOT_DOT = 108"
definition aux_sym_edge_decl_token1 :: TSSymbol where "aux_sym_edge_decl_token1 = 109"
definition aux_sym_edge_decl_token2 :: TSSymbol where "aux_sym_edge_decl_token2 = 110"
definition aux_sym_output_decls_token1 :: TSSymbol where "aux_sym_output_decls_token1 = 111"
definition aux_sym_in_out_decls_token1 :: TSSymbol where "aux_sym_in_out_decls_token1 = 112"
definition aux_sym_var_decls_token1 :: TSSymbol where "aux_sym_var_decls_token1 = 113"
definition aux_sym_temp_var_decls_token1 :: TSSymbol where "aux_sym_temp_var_decls_token1 = 114"
definition aux_sym_external_var_decls_token1 :: TSSymbol where "aux_sym_external_var_decls_token1 = 115"
definition aux_sym_global_var_decls_token1 :: TSSymbol where "aux_sym_global_var_decls_token1 = 116"
definition aux_sym_func_decl_token1 :: TSSymbol where "aux_sym_func_decl_token1 = 117"
definition aux_sym_func_decl_token2 :: TSSymbol where "aux_sym_func_decl_token2 = 118"
definition aux_sym_fb_decl_token1 :: TSSymbol where "aux_sym_fb_decl_token1 = 119"
definition aux_sym_fb_decl_token2 :: TSSymbol where "aux_sym_fb_decl_token2 = 120"
definition aux_sym_fb_decl_token3 :: TSSymbol where "aux_sym_fb_decl_token3 = 121"
definition aux_sym_fb_decl_token4 :: TSSymbol where "aux_sym_fb_decl_token4 = 122"
definition aux_sym_method_decl_token1 :: TSSymbol where "aux_sym_method_decl_token1 = 123"
definition aux_sym_method_decl_token2 :: TSSymbol where "aux_sym_method_decl_token2 = 124"
definition aux_sym_method_decl_token3 :: TSSymbol where "aux_sym_method_decl_token3 = 125"
definition aux_sym_class_decl_token1 :: TSSymbol where "aux_sym_class_decl_token1 = 126"
definition aux_sym_class_decl_token2 :: TSSymbol where "aux_sym_class_decl_token2 = 127"
definition aux_sym_interface_decl_token1 :: TSSymbol where "aux_sym_interface_decl_token1 = 128"
definition aux_sym_interface_decl_token2 :: TSSymbol where "aux_sym_interface_decl_token2 = 129"
definition aux_sym_access_spec_token1 :: TSSymbol where "aux_sym_access_spec_token1 = 130"
definition aux_sym_access_spec_token2 :: TSSymbol where "aux_sym_access_spec_token2 = 131"
definition aux_sym_access_spec_token3 :: TSSymbol where "aux_sym_access_spec_token3 = 132"
definition aux_sym_access_spec_token4 :: TSSymbol where "aux_sym_access_spec_token4 = 133"
definition aux_sym_prog_decl_token1 :: TSSymbol where "aux_sym_prog_decl_token1 = 134"
definition aux_sym_prog_decl_token2 :: TSSymbol where "aux_sym_prog_decl_token2 = 135"
definition aux_sym_prog_access_decls_token1 :: TSSymbol where "aux_sym_prog_access_decls_token1 = 136"
definition aux_sym_initial_step_token1 :: TSSymbol where "aux_sym_initial_step_token1 = 137"
definition aux_sym_initial_step_token2 :: TSSymbol where "aux_sym_initial_step_token2 = 138"
definition aux_sym_step_token1 :: TSSymbol where "aux_sym_step_token1 = 139"
definition anon_sym_N :: TSSymbol where "anon_sym_N = 140"
definition anon_sym_R :: TSSymbol where "anon_sym_R = 141"
definition anon_sym_S :: TSSymbol where "anon_sym_S = 142"
definition anon_sym_P :: TSSymbol where "anon_sym_P = 143"
definition anon_sym_L :: TSSymbol where "anon_sym_L = 144"
definition anon_sym_D :: TSSymbol where "anon_sym_D = 145"
definition aux_sym_action_qualifier_token1 :: TSSymbol where "aux_sym_action_qualifier_token1 = 146"
definition aux_sym_action_qualifier_token2 :: TSSymbol where "aux_sym_action_qualifier_token2 = 147"
definition aux_sym_action_qualifier_token3 :: TSSymbol where "aux_sym_action_qualifier_token3 = 148"
definition aux_sym_transition_token1 :: TSSymbol where "aux_sym_transition_token1 = 149"
definition aux_sym_transition_token2 :: TSSymbol where "aux_sym_transition_token2 = 150"
definition aux_sym_transition_token3 :: TSSymbol where "aux_sym_transition_token3 = 151"
definition aux_sym_transition_token4 :: TSSymbol where "aux_sym_transition_token4 = 152"
definition aux_sym_transition_token5 :: TSSymbol where "aux_sym_transition_token5 = 153"
definition aux_sym_action_token1 :: TSSymbol where "aux_sym_action_token1 = 154"
definition aux_sym_action_token2 :: TSSymbol where "aux_sym_action_token2 = 155"
definition aux_sym_config_decl_token1 :: TSSymbol where "aux_sym_config_decl_token1 = 156"
definition aux_sym_config_decl_token2 :: TSSymbol where "aux_sym_config_decl_token2 = 157"
definition aux_sym_resource_decl_token1 :: TSSymbol where "aux_sym_resource_decl_token1 = 158"
definition aux_sym_resource_decl_token2 :: TSSymbol where "aux_sym_resource_decl_token2 = 159"
definition aux_sym_resource_decl_token3 :: TSSymbol where "aux_sym_resource_decl_token3 = 160"
definition aux_sym_access_direction_token1 :: TSSymbol where "aux_sym_access_direction_token1 = 161"
definition aux_sym_access_direction_token2 :: TSSymbol where "aux_sym_access_direction_token2 = 162"
definition aux_sym_task_config_token1 :: TSSymbol where "aux_sym_task_config_token1 = 163"
definition aux_sym_prog_config_token1 :: TSSymbol where "aux_sym_prog_config_token1 = 164"
definition aux_sym_config_init_token1 :: TSSymbol where "aux_sym_config_init_token1 = 165"
definition aux_sym_namespace_decl_token1 :: TSSymbol where "aux_sym_namespace_decl_token1 = 166"
definition aux_sym_namespace_decl_token2 :: TSSymbol where "aux_sym_namespace_decl_token2 = 167"
definition aux_sym_using_directive_token1 :: TSSymbol where "aux_sym_using_directive_token1 = 168"
definition anon_sym_SLASH :: TSSymbol where "anon_sym_SLASH = 169"
definition anon_sym_STAR_STAR :: TSSymbol where "anon_sym_STAR_STAR = 170"
definition anon_sym_AMP :: TSSymbol where "anon_sym_AMP = 171"
definition anon_sym_PIPE :: TSSymbol where "anon_sym_PIPE = 172"
definition anon_sym_LT_GT :: TSSymbol where "anon_sym_LT_GT = 173"
definition anon_sym_LT :: TSSymbol where "anon_sym_LT = 174"
definition anon_sym_GT :: TSSymbol where "anon_sym_GT = 175"
definition anon_sym_LT_EQ :: TSSymbol where "anon_sym_LT_EQ = 176"
definition anon_sym_GT_EQ :: TSSymbol where "anon_sym_GT_EQ = 177"
definition aux_sym_fold_operator_token1 :: TSSymbol where "aux_sym_fold_operator_token1 = 178"
definition aux_sym_fold_operator_token2 :: TSSymbol where "aux_sym_fold_operator_token2 = 179"
definition aux_sym_or_operator_token1 :: TSSymbol where "aux_sym_or_operator_token1 = 180"
definition aux_sym_xor_operator_token1 :: TSSymbol where "aux_sym_xor_operator_token1 = 181"
definition aux_sym_and_operator_token1 :: TSSymbol where "aux_sym_and_operator_token1 = 182"
definition aux_sym_mult_token1 :: TSSymbol where "aux_sym_mult_token1 = 183"
definition aux_sym_unary_token1 :: TSSymbol where "aux_sym_unary_token1 = 184"
definition aux_sym__stmt_token1 :: TSSymbol where "aux_sym__stmt_token1 = 185"
definition aux_sym__stmt_token2 :: TSSymbol where "aux_sym__stmt_token2 = 186"
definition aux_sym__stmt_token3 :: TSSymbol where "aux_sym__stmt_token3 = 187"
definition aux_sym_if_stmt_token1 :: TSSymbol where "aux_sym_if_stmt_token1 = 188"
definition aux_sym_if_stmt_token2 :: TSSymbol where "aux_sym_if_stmt_token2 = 189"
definition aux_sym_if_stmt_token3 :: TSSymbol where "aux_sym_if_stmt_token3 = 190"
definition aux_sym_if_stmt_token4 :: TSSymbol where "aux_sym_if_stmt_token4 = 191"
definition aux_sym_else_if_stmt_token1 :: TSSymbol where "aux_sym_else_if_stmt_token1 = 192"
definition aux_sym_case_stmt_token1 :: TSSymbol where "aux_sym_case_stmt_token1 = 193"
definition aux_sym_case_stmt_token2 :: TSSymbol where "aux_sym_case_stmt_token2 = 194"
definition aux_sym_for_stmt_token1 :: TSSymbol where "aux_sym_for_stmt_token1 = 195"
definition aux_sym_for_stmt_token2 :: TSSymbol where "aux_sym_for_stmt_token2 = 196"
definition aux_sym_for_stmt_token3 :: TSSymbol where "aux_sym_for_stmt_token3 = 197"
definition aux_sym_for_list_token1 :: TSSymbol where "aux_sym_for_list_token1 = 198"
definition aux_sym_while_stmt_token1 :: TSSymbol where "aux_sym_while_stmt_token1 = 199"
definition aux_sym_while_stmt_token2 :: TSSymbol where "aux_sym_while_stmt_token2 = 200"
definition aux_sym_repeat_stmt_token1 :: TSSymbol where "aux_sym_repeat_stmt_token1 = 201"
definition aux_sym_repeat_stmt_token2 :: TSSymbol where "aux_sym_repeat_stmt_token2 = 202"
definition aux_sym_repeat_stmt_token3 :: TSSymbol where "aux_sym_repeat_stmt_token3 = 203"
definition aux_sym_raise_stmt_token1 :: TSSymbol where "aux_sym_raise_stmt_token1 = 204"
definition aux_sym_try_stmt_token1 :: TSSymbol where "aux_sym_try_stmt_token1 = 205"
definition aux_sym_try_stmt_token2 :: TSSymbol where "aux_sym_try_stmt_token2 = 206"
definition aux_sym_catch_clause_token1 :: TSSymbol where "aux_sym_catch_clause_token1 = 207"
definition aux_sym_finally_clause_token1 :: TSSymbol where "aux_sym_finally_clause_token1 = 208"
definition aux_sym_ERR_end_try_spelling_token1 :: TSSymbol where "aux_sym_ERR_end_try_spelling_token1 = 209"
definition anon_sym_LPAREN_RPAREN :: TSSymbol where "anon_sym_LPAREN_RPAREN = 210"
definition anon_sym_I :: TSSymbol where "anon_sym_I = 211"
definition anon_sym_Q :: TSSymbol where "anon_sym_Q = 212"
definition anon_sym_M :: TSSymbol where "anon_sym_M = 213"
definition sym_ld_rung :: TSSymbol where "sym_ld_rung = 214"
definition sym_fbd_network :: TSSymbol where "sym_fbd_network = 215"
definition sym_adress_identifier :: TSSymbol where "sym_adress_identifier = 216"
definition sym_c_style_comment :: TSSymbol where "sym_c_style_comment = 217"
definition sym_pascal_style_comment :: TSSymbol where "sym_pascal_style_comment = 218"
definition sym_pragma :: TSSymbol where "sym_pragma = 219"
definition sym__minus_before_base :: TSSymbol where "sym__minus_before_base = 220"
definition sym__plus_before_base :: TSSymbol where "sym__plus_before_base = 221"

definition TOKEN_COUNT :: nat where "TOKEN_COUNT = 222"

text \<open>Every number, for the proofs that compare two tokens.\<close>

lemmas token_numbers =
  ts_builtin_sym_end_def sym_identifier_def aux_sym_ERR_implements_before_extends_token1_def
  aux_sym_ERR_extends_multiple_times_token1_def aux_sym_ERR_doubled_qualifier_token1_def
  aux_sym_ERR_doubled_qualifier_token2_def aux_sym_ERR_doubled_retain_token1_def
  aux_sym_ERR_invalid_edge_qualifier_token1_def anon_sym_COLON_EQ_def anon_sym_EQ_def
  anon_sym_COLON_def anon_sym_EQ_GT_def aux_sym_ERR_unexpected_this_in_path_token1_def
  aux_sym_ERR_unexpected_super_in_path_token1_def anon_sym_COMMA_def
  aux_sym_ERR_single_after_interval_token1_def aux_sym_ERR_interval_after_priority_token1_def
  sym_line_comment_def anon_sym_LBRACE_def anon_sym_extern_def anon_sym_RBRACE_def
  anon_sym_LPAREN_def anon_sym_params_def anon_sym_RPAREN_def anon_sym_result_def
  anon_sym_wasm_def sym_pragma_string_def anon_sym_warn_def anon_sym_info_def anon_sym_allow_def
  aux_sym_test_pragma_token1_def aux_sym_once_pragma_token1_def
  aux_sym_must_call_pragma_token1_def aux_sym_export_pragma_token1_def anon_sym_POUND_def
  sym_unsigned_int_def sym__explicit_signed_int_def sym_binary_int_def sym_octal_int_def
  sym_hex_int_def sym__explicit_signed_real_def sym_real_value_def
  aux_sym_bool_literal_with_string_token1_def aux_sym_bool_literal_with_string_token2_def
  aux_sym_bool_literal_with_string_token3_def anon_sym_0_def anon_sym_1_def
  sym_s_byte_char_str_def sym_d_byte_char_str_def aux_sym_time_token1_def anon_sym_PLUS_def
  anon_sym_DASH_def aux_sym_ltime_token1_def sym_time_value_def aux_sym_tod_token1_def
  aux_sym_ltod_token1_def sym_daytime_def aux_sym_short_date_token1_def
  aux_sym_long_date_token1_def aux_sym_date_literal_token1_def
  aux_sym_short_date_and_time_token1_def aux_sym_long_date_and_time_token1_def
  aux_sym_sign_int_type_name_token1_def aux_sym_sign_int_type_name_token2_def
  aux_sym_sign_int_type_name_token3_def aux_sym_sign_int_type_name_token4_def
  aux_sym_unsign_int_type_name_token1_def aux_sym_unsign_int_type_name_token2_def
  aux_sym_unsign_int_type_name_token3_def aux_sym_unsign_int_type_name_token4_def
  aux_sym_real_type_name_token1_def aux_sym_real_type_name_token2_def
  aux_sym_string_name_token1_def anon_sym_LBRACK_def anon_sym_RBRACK_def
  aux_sym_char_name_token1_def sym_time_type_name_def sym_l_time_type_name_def
  sym_date_type_name_def sym_l_date_type_name_def sym_tod_type_name_def sym_ltod_type_name_def
  sym_dt_type_name_def sym_l_dt_type_name_def aux_sym_bit_str_type_name_token1_def
  aux_sym_multibits_type_name_token1_def aux_sym_multibits_type_name_token2_def
  aux_sym_multibits_type_name_token3_def aux_sym_multibits_type_name_token4_def
  aux_sym_data_type_decl_token1_def anon_sym_SEMI_def aux_sym_data_type_decl_token2_def
  anon_sym_DOT_DOT_def aux_sym_array_type_spec_token1_def aux_sym_array_type_spec_token2_def
  aux_sym_struct_type_spec_token1_def aux_sym_struct_type_spec_token2_def
  aux_sym_struct_type_spec_token3_def aux_sym_relative_located_at_token1_def anon_sym_PERCENT_def
  anon_sym_STAR_def anon_sym_DOT_def aux_sym_ref_type_spec_token1_def aux_sym_ref_value_token1_def
  aux_sym_ref_addr_token1_def anon_sym_CARET_def aux_sym_input_decls_token1_def
  aux_sym_input_decls_token2_def anon_sym_DOT_DOT_DOT_def aux_sym_edge_decl_token1_def
  aux_sym_edge_decl_token2_def aux_sym_output_decls_token1_def aux_sym_in_out_decls_token1_def
  aux_sym_var_decls_token1_def aux_sym_temp_var_decls_token1_def
  aux_sym_external_var_decls_token1_def aux_sym_global_var_decls_token1_def
  aux_sym_func_decl_token1_def aux_sym_func_decl_token2_def aux_sym_fb_decl_token1_def
  aux_sym_fb_decl_token2_def aux_sym_fb_decl_token3_def aux_sym_fb_decl_token4_def
  aux_sym_method_decl_token1_def aux_sym_method_decl_token2_def aux_sym_method_decl_token3_def
  aux_sym_class_decl_token1_def aux_sym_class_decl_token2_def aux_sym_interface_decl_token1_def
  aux_sym_interface_decl_token2_def aux_sym_access_spec_token1_def aux_sym_access_spec_token2_def
  aux_sym_access_spec_token3_def aux_sym_access_spec_token4_def aux_sym_prog_decl_token1_def
  aux_sym_prog_decl_token2_def aux_sym_prog_access_decls_token1_def
  aux_sym_initial_step_token1_def aux_sym_initial_step_token2_def aux_sym_step_token1_def
  anon_sym_N_def anon_sym_R_def anon_sym_S_def anon_sym_P_def anon_sym_L_def anon_sym_D_def
  aux_sym_action_qualifier_token1_def aux_sym_action_qualifier_token2_def
  aux_sym_action_qualifier_token3_def aux_sym_transition_token1_def aux_sym_transition_token2_def
  aux_sym_transition_token3_def aux_sym_transition_token4_def aux_sym_transition_token5_def
  aux_sym_action_token1_def aux_sym_action_token2_def aux_sym_config_decl_token1_def
  aux_sym_config_decl_token2_def aux_sym_resource_decl_token1_def aux_sym_resource_decl_token2_def
  aux_sym_resource_decl_token3_def aux_sym_access_direction_token1_def
  aux_sym_access_direction_token2_def aux_sym_task_config_token1_def
  aux_sym_prog_config_token1_def aux_sym_config_init_token1_def aux_sym_namespace_decl_token1_def
  aux_sym_namespace_decl_token2_def aux_sym_using_directive_token1_def anon_sym_SLASH_def
  anon_sym_STAR_STAR_def anon_sym_AMP_def anon_sym_PIPE_def anon_sym_LT_GT_def anon_sym_LT_def
  anon_sym_GT_def anon_sym_LT_EQ_def anon_sym_GT_EQ_def aux_sym_fold_operator_token1_def
  aux_sym_fold_operator_token2_def aux_sym_or_operator_token1_def aux_sym_xor_operator_token1_def
  aux_sym_and_operator_token1_def aux_sym_mult_token1_def aux_sym_unary_token1_def
  aux_sym__stmt_token1_def aux_sym__stmt_token2_def aux_sym__stmt_token3_def
  aux_sym_if_stmt_token1_def aux_sym_if_stmt_token2_def aux_sym_if_stmt_token3_def
  aux_sym_if_stmt_token4_def aux_sym_else_if_stmt_token1_def aux_sym_case_stmt_token1_def
  aux_sym_case_stmt_token2_def aux_sym_for_stmt_token1_def aux_sym_for_stmt_token2_def
  aux_sym_for_stmt_token3_def aux_sym_for_list_token1_def aux_sym_while_stmt_token1_def
  aux_sym_while_stmt_token2_def aux_sym_repeat_stmt_token1_def aux_sym_repeat_stmt_token2_def
  aux_sym_repeat_stmt_token3_def aux_sym_raise_stmt_token1_def aux_sym_try_stmt_token1_def
  aux_sym_try_stmt_token2_def aux_sym_catch_clause_token1_def aux_sym_finally_clause_token1_def
  aux_sym_ERR_end_try_spelling_token1_def anon_sym_LPAREN_RPAREN_def anon_sym_I_def anon_sym_Q_def
  anon_sym_M_def sym_ld_rung_def sym_fbd_network_def sym_adress_identifier_def
  sym_c_style_comment_def sym_pascal_style_comment_def sym_pragma_def sym__minus_before_base_def
  sym__plus_before_base_def

end
