(* ===== verification/Grammar_Symbols.thy ===== *)
theory Grammar_Symbols
  imports Symbols
begin

text \<open>
  The symbols of \<open>enum ts_symbol_identifiers\<close> in \<open>src/crates/tree-sitter/src/parser.c\<close> that are no
  tokens: the non-terminals from \<open>TOKEN_COUNT\<close> on, and after \<open>SYMBOL_COUNT\<close> the names that only stand
  for other symbols.
\<close>

definition sym_source_file :: TSSymbol where "sym_source_file = 222"
definition sym_ERR_implements_before_extends :: TSSymbol where "sym_ERR_implements_before_extends = 223"
definition sym_ERR_implements_multiple_times :: TSSymbol where "sym_ERR_implements_multiple_times = 224"
definition sym_ERR_extends_multiple_times :: TSSymbol where "sym_ERR_extends_multiple_times = 225"
definition sym_ERR_doubled_qualifier :: TSSymbol where "sym_ERR_doubled_qualifier = 226"
definition sym_ERR_doubled_retain :: TSSymbol where "sym_ERR_doubled_retain = 227"
definition sym_ERR_doubled_non_retain :: TSSymbol where "sym_ERR_doubled_non_retain = 228"
definition sym_ERR_doubled_constant :: TSSymbol where "sym_ERR_doubled_constant = 229"
definition sym_ERR_doubled_global_qualifier :: TSSymbol where "sym_ERR_doubled_global_qualifier = 230"
definition sym_ERR_variable_with_no_spec :: TSSymbol where "sym_ERR_variable_with_no_spec = 231"
definition sym_ERR_config_entry_with_no_spec :: TSSymbol where "sym_ERR_config_entry_with_no_spec = 232"
definition sym_ERR_invalid_edge_qualifier :: TSSymbol where "sym_ERR_invalid_edge_qualifier = 233"
definition sym_ERR_empty_right_hand_assignment :: TSSymbol where "sym_ERR_empty_right_hand_assignment = 234"
definition sym_ERR_assign_func_call :: TSSymbol where "sym_ERR_assign_func_call = 235"
definition sym_ERR_missing_dot_in_assignment :: TSSymbol where "sym_ERR_missing_dot_in_assignment = 236"
definition sym_ERR_missing_equal_in_assignment :: TSSymbol where "sym_ERR_missing_equal_in_assignment = 237"
definition sym_ERR_missing_dot_in_for_control :: TSSymbol where "sym_ERR_missing_dot_in_for_control = 238"
definition sym_ERR_missing_equal_in_for_control :: TSSymbol where "sym_ERR_missing_equal_in_for_control = 239"
definition sym_ERR_assign_in_condition :: TSSymbol where "sym_ERR_assign_in_condition = 240"
definition sym_ERR_output_assign_in_assignment :: TSSymbol where "sym_ERR_output_assign_in_assignment = 241"
definition sym_ERR_output_assign_in_for_control :: TSSymbol where "sym_ERR_output_assign_in_for_control = 242"
definition sym_ERR_unexpected_this_in_path :: TSSymbol where "sym_ERR_unexpected_this_in_path = 243"
definition sym_ERR_unexpected_super_in_path :: TSSymbol where "sym_ERR_unexpected_super_in_path = 244"
definition sym_ERR_func_call_in_init :: TSSymbol where "sym_ERR_func_call_in_init = 245"
definition sym_ERR_class_variables_after_method :: TSSymbol where "sym_ERR_class_variables_after_method = 246"
definition sym_ERR_fb_variables_after_method :: TSSymbol where "sym_ERR_fb_variables_after_method = 247"
definition sym_ERR_program_not_allowed_in_namespace :: TSSymbol where "sym_ERR_program_not_allowed_in_namespace = 248"
definition sym_ERR_config_not_allowed_in_namespace :: TSSymbol where "sym_ERR_config_not_allowed_in_namespace = 249"
definition sym_ERR_single_after_interval :: TSSymbol where "sym_ERR_single_after_interval = 250"
definition sym_ERR_interval_after_priority :: TSSymbol where "sym_ERR_interval_after_priority = 251"
definition sym_ERR_single_after_priorty :: TSSymbol where "sym_ERR_single_after_priorty = 252"
definition sym_ERR_var_in_out_not_allowed :: TSSymbol where "sym_ERR_var_in_out_not_allowed = 253"
definition sym_ERR_var_temp_not_allowed :: TSSymbol where "sym_ERR_var_temp_not_allowed = 254"
definition sym_ERR_variadic_fb_input :: TSSymbol where "sym_ERR_variadic_fb_input = 255"
definition sym_ERR_var_access_not_allowed :: TSSymbol where "sym_ERR_var_access_not_allowed = 256"
definition sym_ERR_var_config_not_allowed :: TSSymbol where "sym_ERR_var_config_not_allowed = 257"
definition sym_ERR_var_external_not_allowed :: TSSymbol where "sym_ERR_var_external_not_allowed = 258"
definition sym_ERR_var_global_not_allowed :: TSSymbol where "sym_ERR_var_global_not_allowed = 259"
definition sym_ERR_task_or_program_outside_resource :: TSSymbol where "sym_ERR_task_or_program_outside_resource = 260"
definition sym_ERR_var_not_allowed :: TSSymbol where "sym_ERR_var_not_allowed = 261"
definition sym_ERR_access_spec_in_method_prototype :: TSSymbol where "sym_ERR_access_spec_in_method_prototype = 262"
definition sym_ERR_method_decl_in_body :: TSSymbol where "sym_ERR_method_decl_in_body = 263"
definition sym_extern_pragma :: TSSymbol where "sym_extern_pragma = 264"
definition sym_extern_param_list :: TSSymbol where "sym_extern_param_list = 265"
definition sym_extern_result :: TSSymbol where "sym_extern_result = 266"
definition sym_wasm_pragma :: TSSymbol where "sym_wasm_pragma = 267"
definition sym_warn_pragma :: TSSymbol where "sym_warn_pragma = 268"
definition sym_warn_pragma_level :: TSSymbol where "sym_warn_pragma_level = 269"
definition sym_allow_pragma :: TSSymbol where "sym_allow_pragma = 270"
definition sym_test_pragma :: TSSymbol where "sym_test_pragma = 271"
definition sym_once_pragma :: TSSymbol where "sym_once_pragma = 272"
definition sym_must_call_pragma :: TSSymbol where "sym_must_call_pragma = 273"
definition sym_export_pragma :: TSSymbol where "sym_export_pragma = 274"
definition sym_pou_pragma :: TSSymbol where "sym_pou_pragma = 275"
definition sym_constant :: TSSymbol where "sym_constant = 276"
definition sym_numeric_literal :: TSSymbol where "sym_numeric_literal = 277"
definition sym_int_literal :: TSSymbol where "sym_int_literal = 278"
definition sym_int_kind :: TSSymbol where "sym_int_kind = 279"
definition sym_signed_int :: TSSymbol where "sym_signed_int = 280"
definition sym_real_literal :: TSSymbol where "sym_real_literal = 281"
definition sym_signed_real_value :: TSSymbol where "sym_signed_real_value = 282"
definition sym_bool_literal :: TSSymbol where "sym_bool_literal = 283"
definition sym_bool_literal_with_string :: TSSymbol where "sym_bool_literal_with_string = 284"
definition sym_bool_literal_with_numeric :: TSSymbol where "sym_bool_literal_with_numeric = 285"
definition sym_char_literal :: TSSymbol where "sym_char_literal = 286"
definition sym_char_str :: TSSymbol where "sym_char_str = 287"
definition sym_time_literal :: TSSymbol where "sym_time_literal = 288"
definition sym_duration :: TSSymbol where "sym_duration = 289"
definition sym_time :: TSSymbol where "sym_time = 290"
definition sym_ltime :: TSSymbol where "sym_ltime = 291"
definition sym_time_of_day :: TSSymbol where "sym_time_of_day = 292"
definition sym_tod :: TSSymbol where "sym_tod = 293"
definition sym_ltod :: TSSymbol where "sym_ltod = 294"
definition sym_date :: TSSymbol where "sym_date = 295"
definition sym_short_date :: TSSymbol where "sym_short_date = 296"
definition sym_long_date :: TSSymbol where "sym_long_date = 297"
definition sym_date_literal :: TSSymbol where "sym_date_literal = 298"
definition sym_date_and_time :: TSSymbol where "sym_date_and_time = 299"
definition sym_short_date_and_time :: TSSymbol where "sym_short_date_and_time = 300"
definition sym_long_date_and_time :: TSSymbol where "sym_long_date_and_time = 301"
definition sym_date_and_daytime :: TSSymbol where "sym_date_and_daytime = 302"
definition sym_data_type_access :: TSSymbol where "sym_data_type_access = 303"
definition sym__elem_type_name :: TSSymbol where "sym__elem_type_name = 304"
definition sym_numeric_type_name :: TSSymbol where "sym_numeric_type_name = 305"
definition sym_int_type_name :: TSSymbol where "sym_int_type_name = 306"
definition sym_sign_int_type_name :: TSSymbol where "sym_sign_int_type_name = 307"
definition sym_unsign_int_type_name :: TSSymbol where "sym_unsign_int_type_name = 308"
definition sym_real_type_name :: TSSymbol where "sym_real_type_name = 309"
definition sym_string_type_name :: TSSymbol where "sym_string_type_name = 310"
definition sym_string_name :: TSSymbol where "sym_string_name = 311"
definition sym_char_name :: TSSymbol where "sym_char_name = 312"
definition sym_bit_str_type_name :: TSSymbol where "sym_bit_str_type_name = 313"
definition sym_multibits_type_name :: TSSymbol where "sym_multibits_type_name = 314"
definition sym_data_type_decl :: TSSymbol where "sym_data_type_decl = 315"
definition sym_type_decl :: TSSymbol where "sym_type_decl = 316"
definition sym_simple_type_spec :: TSSymbol where "sym_simple_type_spec = 317"
definition sym_simple_type_init :: TSSymbol where "sym_simple_type_init = 318"
definition sym_subrange_type_spec :: TSSymbol where "sym_subrange_type_spec = 319"
definition sym_subrange :: TSSymbol where "sym_subrange = 320"
definition sym_enum_type_spec :: TSSymbol where "sym_enum_type_spec = 321"
definition sym_enum_spec :: TSSymbol where "sym_enum_spec = 322"
definition sym_enum_value_spec :: TSSymbol where "sym_enum_value_spec = 323"
definition sym_enum_value :: TSSymbol where "sym_enum_value = 324"
definition sym_array_type_spec :: TSSymbol where "sym_array_type_spec = 325"
definition sym_array_type_init :: TSSymbol where "sym_array_type_init = 326"
definition sym_ranges :: TSSymbol where "sym_ranges = 327"
definition sym_struct_type_spec :: TSSymbol where "sym_struct_type_spec = 328"
definition sym_struct_type_init :: TSSymbol where "sym_struct_type_init = 329"
definition sym_init_elem :: TSSymbol where "sym_init_elem = 330"
definition sym__array_item :: TSSymbol where "sym__array_item = 331"
definition sym_array_init :: TSSymbol where "sym_array_init = 332"
definition sym_element_at :: TSSymbol where "sym_element_at = 333"
definition sym__element_value :: TSSymbol where "sym__element_value = 334"
definition sym_array_index_elem :: TSSymbol where "sym_array_index_elem = 335"
definition sym_array_values :: TSSymbol where "sym_array_values = 336"
definition sym_repeat_values :: TSSymbol where "sym_repeat_values = 337"
definition sym_struct_init :: TSSymbol where "sym_struct_init = 338"
definition sym_struct_elem :: TSSymbol where "sym_struct_elem = 339"
definition sym_struct_elem_decl :: TSSymbol where "sym_struct_elem_decl = 340"
definition sym_struct_elem_decl_attributes :: TSSymbol where "sym_struct_elem_decl_attributes = 341"
definition sym_relative_located_at :: TSSymbol where "sym_relative_located_at = 342"
definition sym_relative_direct_variable :: TSSymbol where "sym_relative_direct_variable = 343"
definition sym_relative_offset :: TSSymbol where "sym_relative_offset = 344"
definition sym_direct_variable :: TSSymbol where "sym_direct_variable = 345"
definition sym_offset :: TSSymbol where "sym_offset = 346"
definition sym_ref_type_spec :: TSSymbol where "sym_ref_type_spec = 347"
definition sym_ref_spec :: TSSymbol where "sym_ref_spec = 348"
definition sym_ref_value :: TSSymbol where "sym_ref_value = 349"
definition sym_ref_addr :: TSSymbol where "sym_ref_addr = 350"
definition sym_deref_expression :: TSSymbol where "sym_deref_expression = 351"
definition sym_variable :: TSSymbol where "sym_variable = 352"
definition sym_var_access :: TSSymbol where "sym_var_access = 353"
definition sym_input_decls :: TSSymbol where "sym_input_decls = 354"
definition sym_input_var :: TSSymbol where "sym_input_var = 355"
definition sym__input_var_kind :: TSSymbol where "sym__input_var_kind = 356"
definition sym_variadic_decl :: TSSymbol where "sym_variadic_decl = 357"
definition sym_edge_decl :: TSSymbol where "sym_edge_decl = 358"
definition sym_var_decl_init :: TSSymbol where "sym_var_decl_init = 359"
definition sym_var_decl :: TSSymbol where "sym_var_decl = 360"
definition sym_variable_list :: TSSymbol where "sym_variable_list = 361"
definition sym_array_conformand :: TSSymbol where "sym_array_conformand = 362"
definition sym_conformand_dimension :: TSSymbol where "sym_conformand_dimension = 363"
definition sym_output_decls :: TSSymbol where "sym_output_decls = 364"
definition sym_output_var :: TSSymbol where "sym_output_var = 365"
definition sym__output_var_kind :: TSSymbol where "sym__output_var_kind = 366"
definition sym_in_out_decls :: TSSymbol where "sym_in_out_decls = 367"
definition sym_in_out_var :: TSSymbol where "sym_in_out_var = 368"
definition sym__in_out_var_kind :: TSSymbol where "sym__in_out_var_kind = 369"
definition sym_var_decls :: TSSymbol where "sym_var_decls = 370"
definition sym_retain_var_decls :: TSSymbol where "sym_retain_var_decls = 371"
definition sym_var_decl_init_list :: TSSymbol where "sym_var_decl_init_list = 372"
definition sym_loc_var_decl :: TSSymbol where "sym_loc_var_decl = 373"
definition sym_temp_var_decls :: TSSymbol where "sym_temp_var_decls = 374"
definition sym_temp_var :: TSSymbol where "sym_temp_var = 375"
definition sym__temp_var_kind :: TSSymbol where "sym__temp_var_kind = 376"
definition sym_external_var_decls :: TSSymbol where "sym_external_var_decls = 377"
definition sym_external_decl :: TSSymbol where "sym_external_decl = 378"
definition sym__external_var_kind :: TSSymbol where "sym__external_var_kind = 379"
definition sym_global_var_decls :: TSSymbol where "sym_global_var_decls = 380"
definition sym_global_var_decl :: TSSymbol where "sym_global_var_decl = 381"
definition sym__global_var_kind :: TSSymbol where "sym__global_var_kind = 382"
definition sym_global_var_spec :: TSSymbol where "sym_global_var_spec = 383"
definition sym_loc_var_spec_init :: TSSymbol where "sym_loc_var_spec_init = 384"
definition sym_located_at :: TSSymbol where "sym_located_at = 385"
definition sym_loc_partly_var_decl :: TSSymbol where "sym_loc_partly_var_decl = 386"
definition sym_loc_partly_var :: TSSymbol where "sym_loc_partly_var = 387"
definition sym_var_spec :: TSSymbol where "sym_var_spec = 388"
definition sym_func_decl :: TSSymbol where "sym_func_decl = 389"
definition sym__func_variables :: TSSymbol where "sym__func_variables = 390"
definition sym_func_body :: TSSymbol where "sym_func_body = 391"
definition sym_fb_decl :: TSSymbol where "sym_fb_decl = 392"
definition sym__fb_variables :: TSSymbol where "sym__fb_variables = 393"
definition sym_fb_input_decls :: TSSymbol where "sym_fb_input_decls = 394"
definition sym_fb_input_var :: TSSymbol where "sym_fb_input_var = 395"
definition sym__fb_input_var_kind :: TSSymbol where "sym__fb_input_var_kind = 396"
definition sym_fb_output_decls :: TSSymbol where "sym_fb_output_decls = 397"
definition sym_fb_output_var :: TSSymbol where "sym_fb_output_var = 398"
definition sym__fb_output_var_kind :: TSSymbol where "sym__fb_output_var_kind = 399"
definition sym_no_retain_var_decls :: TSSymbol where "sym_no_retain_var_decls = 400"
definition sym_fb_body :: TSSymbol where "sym_fb_body = 401"
definition sym_method_decl :: TSSymbol where "sym_method_decl = 402"
definition sym__method_decl_variables :: TSSymbol where "sym__method_decl_variables = 403"
definition sym_class_decl :: TSSymbol where "sym_class_decl = 404"
definition sym__class_variables :: TSSymbol where "sym__class_variables = 405"
definition sym_interface_decl :: TSSymbol where "sym_interface_decl = 406"
definition sym_method_prototype :: TSSymbol where "sym_method_prototype = 407"
definition sym__method_prot_variables :: TSSymbol where "sym__method_prot_variables = 408"
definition sym_interface_name_list :: TSSymbol where "sym_interface_name_list = 409"
definition sym_access_spec :: TSSymbol where "sym_access_spec = 410"
definition sym_prog_decl :: TSSymbol where "sym_prog_decl = 411"
definition sym_prog_access_decls :: TSSymbol where "sym_prog_access_decls = 412"
definition sym_prog_access_decl :: TSSymbol where "sym_prog_access_decl = 413"
definition sym_SFC :: TSSymbol where "sym_SFC = 414"
definition sym_SFC_network :: TSSymbol where "sym_SFC_network = 415"
definition sym_initial_step :: TSSymbol where "sym_initial_step = 416"
definition sym_step :: TSSymbol where "sym_step = 417"
definition sym_step_name :: TSSymbol where "sym_step_name = 418"
definition sym_action_association :: TSSymbol where "sym_action_association = 419"
definition sym_action_name :: TSSymbol where "sym_action_name = 420"
definition sym_action_qualifier :: TSSymbol where "sym_action_qualifier = 421"
definition sym_action_time :: TSSymbol where "sym_action_time = 422"
definition sym_transition :: TSSymbol where "sym_transition = 423"
definition sym_transition_name :: TSSymbol where "sym_transition_name = 424"
definition sym_steps :: TSSymbol where "sym_steps = 425"
definition sym_transition_cond :: TSSymbol where "sym_transition_cond = 426"
definition sym_action :: TSSymbol where "sym_action = 427"
definition sym_config_decl :: TSSymbol where "sym_config_decl = 428"
definition sym__config_variables :: TSSymbol where "sym__config_variables = 429"
definition sym_resource_decl :: TSSymbol where "sym_resource_decl = 430"
definition sym_single_resource_decl :: TSSymbol where "sym_single_resource_decl = 431"
definition sym_access_decls :: TSSymbol where "sym_access_decls = 432"
definition sym_access_decl :: TSSymbol where "sym_access_decl = 433"
definition sym_access_path :: TSSymbol where "sym_access_path = 434"
definition sym_access_direction :: TSSymbol where "sym_access_direction = 435"
definition sym_task_config :: TSSymbol where "sym_task_config = 436"
definition sym_task_init :: TSSymbol where "sym_task_init = 437"
definition sym_data_source :: TSSymbol where "sym_data_source = 438"
definition sym_prog_config :: TSSymbol where "sym_prog_config = 439"
definition sym_prog_conf_elems :: TSSymbol where "sym_prog_conf_elems = 440"
definition sym_prog_conf_elem :: TSSymbol where "sym_prog_conf_elem = 441"
definition sym_fb_task :: TSSymbol where "sym_fb_task = 442"
definition sym_prog_cnxn :: TSSymbol where "sym_prog_cnxn = 443"
definition sym_prog_data_source :: TSSymbol where "sym_prog_data_source = 444"
definition sym_data_sink :: TSSymbol where "sym_data_sink = 445"
definition sym_config_init :: TSSymbol where "sym_config_init = 446"
definition sym_config_inst_init :: TSSymbol where "sym_config_inst_init = 447"
definition sym_namespace_decl :: TSSymbol where "sym_namespace_decl = 448"
definition sym_namespace_elements :: TSSymbol where "sym_namespace_elements = 449"
definition sym_namespace_h_name :: TSSymbol where "sym_namespace_h_name = 450"
definition sym_using_directive :: TSSymbol where "sym_using_directive = 451"
definition sym__expression :: TSSymbol where "sym__expression = 452"
definition sym_fold_expression :: TSSymbol where "sym_fold_expression = 453"
definition sym_pack_element :: TSSymbol where "sym_pack_element = 454"
definition sym_fold_operator :: TSSymbol where "sym_fold_operator = 455"
definition sym__primary_expression :: TSSymbol where "sym__primary_expression = 456"
definition sym_parenthesized_expression :: TSSymbol where "sym_parenthesized_expression = 457"
definition sym_boolean_operator :: TSSymbol where "sym_boolean_operator = 458"
definition sym_or_operator :: TSSymbol where "sym_or_operator = 459"
definition sym_xor_operator :: TSSymbol where "sym_xor_operator = 460"
definition sym_and_operator :: TSSymbol where "sym_and_operator = 461"
definition sym_comparison_operator :: TSSymbol where "sym_comparison_operator = 462"
definition sym_eq_operator :: TSSymbol where "sym_eq_operator = 463"
definition sym_ord_operator :: TSSymbol where "sym_ord_operator = 464"
definition sym_eq :: TSSymbol where "sym_eq = 465"
definition sym_ord :: TSSymbol where "sym_ord = 466"
definition sym_add_operator :: TSSymbol where "sym_add_operator = 467"
definition sym_add :: TSSymbol where "sym_add = 468"
definition sym_mult_operator :: TSSymbol where "sym_mult_operator = 469"
definition sym_mult :: TSSymbol where "sym_mult = 470"
definition sym_power_operator :: TSSymbol where "sym_power_operator = 471"
definition sym_unary_operator :: TSSymbol where "sym_unary_operator = 472"
definition sym_unary :: TSSymbol where "sym_unary = 473"
definition sym_constant_expr :: TSSymbol where "sym_constant_expr = 474"
definition sym_variable_access :: TSSymbol where "sym_variable_access = 475"
definition sym_multibit_part_access :: TSSymbol where "sym_multibit_part_access = 476"
definition sym_multibit :: TSSymbol where "sym_multibit = 477"
definition sym_func_call :: TSSymbol where "sym_func_call = 478"
definition sym_stmt_list :: TSSymbol where "sym_stmt_list = 479"
definition sym__stmt :: TSSymbol where "sym__stmt = 480"
definition sym_assign :: TSSymbol where "sym_assign = 481"
definition sym_assignment :: TSSymbol where "sym_assignment = 482"
definition sym_param_assign :: TSSymbol where "sym_param_assign = 483"
definition sym_param_assign_input :: TSSymbol where "sym_param_assign_input = 484"
definition sym_param_assign_output :: TSSymbol where "sym_param_assign_output = 485"
definition sym_if_stmt :: TSSymbol where "sym_if_stmt = 486"
definition sym_else_if_stmt :: TSSymbol where "sym_else_if_stmt = 487"
definition sym_case_stmt :: TSSymbol where "sym_case_stmt = 488"
definition sym_case_selection :: TSSymbol where "sym_case_selection = 489"
definition sym_case_body :: TSSymbol where "sym_case_body = 490"
definition sym_case_list :: TSSymbol where "sym_case_list = 491"
definition sym_case_list_elem :: TSSymbol where "sym_case_list_elem = 492"
definition sym_for_stmt :: TSSymbol where "sym_for_stmt = 493"
definition sym_for_list :: TSSymbol where "sym_for_list = 494"
definition sym_while_stmt :: TSSymbol where "sym_while_stmt = 495"
definition sym_repeat_stmt :: TSSymbol where "sym_repeat_stmt = 496"
definition sym_raise_stmt :: TSSymbol where "sym_raise_stmt = 497"
definition sym_try_stmt :: TSSymbol where "sym_try_stmt = 498"
definition sym_catch_clause :: TSSymbol where "sym_catch_clause = 499"
definition sym_finally_clause :: TSSymbol where "sym_finally_clause = 500"
definition sym_ERR_clause_outside_try :: TSSymbol where "sym_ERR_clause_outside_try = 501"
definition sym_ERR_end_try_spelling :: TSSymbol where "sym_ERR_end_try_spelling = 502"
definition sym_namespace_access :: TSSymbol where "sym_namespace_access = 503"
definition sym_scoped_identifier :: TSSymbol where "sym_scoped_identifier = 504"
definition sym__path :: TSSymbol where "sym__path = 505"
definition sym_begin_path_expression :: TSSymbol where "sym_begin_path_expression = 506"
definition sym_invocation :: TSSymbol where "sym_invocation = 507"
definition sym_any_invocation :: TSSymbol where "sym_any_invocation = 508"
definition sym_any_invocation_kind :: TSSymbol where "sym_any_invocation_kind = 509"
definition sym_this_invocation :: TSSymbol where "sym_this_invocation = 510"
definition sym_super_invocation :: TSSymbol where "sym_super_invocation = 511"
definition sym_super_body_invocation :: TSSymbol where "sym_super_body_invocation = 512"
definition sym_path_expression :: TSSymbol where "sym_path_expression = 513"
definition sym_field_expression :: TSSymbol where "sym_field_expression = 514"
definition sym_index_expression :: TSSymbol where "sym_index_expression = 515"
definition sym_index_value :: TSSymbol where "sym_index_value = 516"
definition sym_IQM :: TSSymbol where "sym_IQM = 517"
definition sym_ladder_diagram :: TSSymbol where "sym_ladder_diagram = 518"
definition sym_fb_diagram :: TSSymbol where "sym_fb_diagram = 519"
definition aux_sym_source_file_repeat1 :: TSSymbol where "aux_sym_source_file_repeat1 = 520"
definition aux_sym_ERR_doubled_qualifier_repeat1 :: TSSymbol where "aux_sym_ERR_doubled_qualifier_repeat1 = 521"
definition aux_sym_ERR_doubled_retain_repeat1 :: TSSymbol where "aux_sym_ERR_doubled_retain_repeat1 = 522"
definition aux_sym_ERR_class_variables_after_method_repeat1 :: TSSymbol where "aux_sym_ERR_class_variables_after_method_repeat1 = 523"
definition aux_sym_ERR_fb_variables_after_method_repeat1 :: TSSymbol where "aux_sym_ERR_fb_variables_after_method_repeat1 = 524"
definition aux_sym_extern_param_list_repeat1 :: TSSymbol where "aux_sym_extern_param_list_repeat1 = 525"
definition aux_sym_allow_pragma_repeat1 :: TSSymbol where "aux_sym_allow_pragma_repeat1 = 526"
definition aux_sym_data_type_decl_repeat1 :: TSSymbol where "aux_sym_data_type_decl_repeat1 = 527"
definition aux_sym_enum_spec_repeat1 :: TSSymbol where "aux_sym_enum_spec_repeat1 = 528"
definition aux_sym_array_type_init_repeat1 :: TSSymbol where "aux_sym_array_type_init_repeat1 = 529"
definition aux_sym_ranges_repeat1 :: TSSymbol where "aux_sym_ranges_repeat1 = 530"
definition aux_sym_struct_type_spec_repeat1 :: TSSymbol where "aux_sym_struct_type_spec_repeat1 = 531"
definition aux_sym_struct_type_init_repeat1 :: TSSymbol where "aux_sym_struct_type_init_repeat1 = 532"
definition aux_sym_struct_init_repeat1 :: TSSymbol where "aux_sym_struct_init_repeat1 = 533"
definition aux_sym_relative_offset_repeat1 :: TSSymbol where "aux_sym_relative_offset_repeat1 = 534"
definition aux_sym_ref_type_spec_repeat1 :: TSSymbol where "aux_sym_ref_type_spec_repeat1 = 535"
definition aux_sym_deref_expression_repeat1 :: TSSymbol where "aux_sym_deref_expression_repeat1 = 536"
definition aux_sym_input_decls_repeat1 :: TSSymbol where "aux_sym_input_decls_repeat1 = 537"
definition aux_sym_variable_list_repeat1 :: TSSymbol where "aux_sym_variable_list_repeat1 = 538"
definition aux_sym_array_conformand_repeat1 :: TSSymbol where "aux_sym_array_conformand_repeat1 = 539"
definition aux_sym_output_decls_repeat1 :: TSSymbol where "aux_sym_output_decls_repeat1 = 540"
definition aux_sym_in_out_decls_repeat1 :: TSSymbol where "aux_sym_in_out_decls_repeat1 = 541"
definition aux_sym_var_decls_repeat1 :: TSSymbol where "aux_sym_var_decls_repeat1 = 542"
definition aux_sym_temp_var_decls_repeat1 :: TSSymbol where "aux_sym_temp_var_decls_repeat1 = 543"
definition aux_sym_external_var_decls_repeat1 :: TSSymbol where "aux_sym_external_var_decls_repeat1 = 544"
definition aux_sym_global_var_decls_repeat1 :: TSSymbol where "aux_sym_global_var_decls_repeat1 = 545"
definition aux_sym_global_var_spec_repeat1 :: TSSymbol where "aux_sym_global_var_spec_repeat1 = 546"
definition aux_sym_loc_partly_var_decl_repeat1 :: TSSymbol where "aux_sym_loc_partly_var_decl_repeat1 = 547"
definition aux_sym_func_decl_repeat1 :: TSSymbol where "aux_sym_func_decl_repeat1 = 548"
definition aux_sym_func_decl_repeat2 :: TSSymbol where "aux_sym_func_decl_repeat2 = 549"
definition aux_sym_func_decl_repeat3 :: TSSymbol where "aux_sym_func_decl_repeat3 = 550"
definition aux_sym_fb_decl_repeat1 :: TSSymbol where "aux_sym_fb_decl_repeat1 = 551"
definition aux_sym_fb_decl_repeat2 :: TSSymbol where "aux_sym_fb_decl_repeat2 = 552"
definition aux_sym_fb_decl_repeat3 :: TSSymbol where "aux_sym_fb_decl_repeat3 = 553"
definition aux_sym_fb_input_decls_repeat1 :: TSSymbol where "aux_sym_fb_input_decls_repeat1 = 554"
definition aux_sym_fb_output_decls_repeat1 :: TSSymbol where "aux_sym_fb_output_decls_repeat1 = 555"
definition aux_sym_method_decl_repeat1 :: TSSymbol where "aux_sym_method_decl_repeat1 = 556"
definition aux_sym_interface_decl_repeat1 :: TSSymbol where "aux_sym_interface_decl_repeat1 = 557"
definition aux_sym_method_prototype_repeat1 :: TSSymbol where "aux_sym_method_prototype_repeat1 = 558"
definition aux_sym_interface_name_list_repeat1 :: TSSymbol where "aux_sym_interface_name_list_repeat1 = 559"
definition aux_sym_prog_decl_repeat1 :: TSSymbol where "aux_sym_prog_decl_repeat1 = 560"
definition aux_sym_prog_access_decls_repeat1 :: TSSymbol where "aux_sym_prog_access_decls_repeat1 = 561"
definition aux_sym_SFC_repeat1 :: TSSymbol where "aux_sym_SFC_repeat1 = 562"
definition aux_sym_SFC_network_repeat1 :: TSSymbol where "aux_sym_SFC_network_repeat1 = 563"
definition aux_sym_initial_step_repeat1 :: TSSymbol where "aux_sym_initial_step_repeat1 = 564"
definition aux_sym_action_association_repeat1 :: TSSymbol where "aux_sym_action_association_repeat1 = 565"
definition aux_sym_steps_repeat1 :: TSSymbol where "aux_sym_steps_repeat1 = 566"
definition aux_sym_config_decl_repeat1 :: TSSymbol where "aux_sym_config_decl_repeat1 = 567"
definition aux_sym_resource_decl_repeat1 :: TSSymbol where "aux_sym_resource_decl_repeat1 = 568"
definition aux_sym_access_decls_repeat1 :: TSSymbol where "aux_sym_access_decls_repeat1 = 569"
definition aux_sym_prog_conf_elems_repeat1 :: TSSymbol where "aux_sym_prog_conf_elems_repeat1 = 570"
definition aux_sym_config_init_repeat1 :: TSSymbol where "aux_sym_config_init_repeat1 = 571"
definition aux_sym_namespace_elements_repeat1 :: TSSymbol where "aux_sym_namespace_elements_repeat1 = 572"
definition aux_sym_namespace_h_name_repeat1 :: TSSymbol where "aux_sym_namespace_h_name_repeat1 = 573"
definition aux_sym_using_directive_repeat1 :: TSSymbol where "aux_sym_using_directive_repeat1 = 574"
definition aux_sym_func_call_repeat1 :: TSSymbol where "aux_sym_func_call_repeat1 = 575"
definition aux_sym_stmt_list_repeat1 :: TSSymbol where "aux_sym_stmt_list_repeat1 = 576"
definition aux_sym_if_stmt_repeat1 :: TSSymbol where "aux_sym_if_stmt_repeat1 = 577"
definition aux_sym_case_stmt_repeat1 :: TSSymbol where "aux_sym_case_stmt_repeat1 = 578"
definition aux_sym_case_list_repeat1 :: TSSymbol where "aux_sym_case_list_repeat1 = 579"
definition aux_sym_try_stmt_repeat1 :: TSSymbol where "aux_sym_try_stmt_repeat1 = 580"
definition aux_sym_index_value_repeat1 :: TSSymbol where "aux_sym_index_value_repeat1 = 581"
definition aux_sym_ladder_diagram_repeat1 :: TSSymbol where "aux_sym_ladder_diagram_repeat1 = 582"
definition aux_sym_fb_diagram_repeat1 :: TSSymbol where "aux_sym_fb_diagram_repeat1 = 583"
definition alias_sym_deref_sign :: TSSymbol where "alias_sym_deref_sign = 584"
definition alias_sym_field :: TSSymbol where "alias_sym_field = 585"
definition alias_sym_fold_and :: TSSymbol where "alias_sym_fold_and = 586"
definition alias_sym_fold_div :: TSSymbol where "alias_sym_fold_div = 587"
definition alias_sym_fold_eq :: TSSymbol where "alias_sym_fold_eq = 588"
definition alias_sym_fold_ge :: TSSymbol where "alias_sym_fold_ge = 589"
definition alias_sym_fold_gt :: TSSymbol where "alias_sym_fold_gt = 590"
definition alias_sym_fold_le :: TSSymbol where "alias_sym_fold_le = 591"
definition alias_sym_fold_lt :: TSSymbol where "alias_sym_fold_lt = 592"
definition alias_sym_fold_minus :: TSSymbol where "alias_sym_fold_minus = 593"
definition alias_sym_fold_mod :: TSSymbol where "alias_sym_fold_mod = 594"
definition alias_sym_fold_mul :: TSSymbol where "alias_sym_fold_mul = 595"
definition alias_sym_fold_ne :: TSSymbol where "alias_sym_fold_ne = 596"
definition alias_sym_fold_plus :: TSSymbol where "alias_sym_fold_plus = 597"
definition alias_sym_fold_power :: TSSymbol where "alias_sym_fold_power = 598"
definition alias_sym_fold_xor :: TSSymbol where "alias_sym_fold_xor = 599"
definition alias_sym_internal :: TSSymbol where "alias_sym_internal = 600"
definition alias_sym_partly :: TSSymbol where "alias_sym_partly = 601"
definition alias_sym_ref_to :: TSSymbol where "alias_sym_ref_to = 602"
definition alias_sym_target :: TSSymbol where "alias_sym_target = 603"

definition SYMBOL_COUNT :: nat where "SYMBOL_COUNT = 584"
definition ALIAS_COUNT :: nat where "ALIAS_COUNT = 20"

lemmas grammar_symbol_numbers =
  sym_source_file_def sym_ERR_implements_before_extends_def sym_ERR_implements_multiple_times_def
  sym_ERR_extends_multiple_times_def sym_ERR_doubled_qualifier_def sym_ERR_doubled_retain_def
  sym_ERR_doubled_non_retain_def sym_ERR_doubled_constant_def sym_ERR_doubled_global_qualifier_def
  sym_ERR_variable_with_no_spec_def sym_ERR_config_entry_with_no_spec_def
  sym_ERR_invalid_edge_qualifier_def sym_ERR_empty_right_hand_assignment_def
  sym_ERR_assign_func_call_def sym_ERR_missing_dot_in_assignment_def
  sym_ERR_missing_equal_in_assignment_def sym_ERR_missing_dot_in_for_control_def
  sym_ERR_missing_equal_in_for_control_def sym_ERR_assign_in_condition_def
  sym_ERR_output_assign_in_assignment_def sym_ERR_output_assign_in_for_control_def
  sym_ERR_unexpected_this_in_path_def sym_ERR_unexpected_super_in_path_def
  sym_ERR_func_call_in_init_def sym_ERR_class_variables_after_method_def
  sym_ERR_fb_variables_after_method_def sym_ERR_program_not_allowed_in_namespace_def
  sym_ERR_config_not_allowed_in_namespace_def sym_ERR_single_after_interval_def
  sym_ERR_interval_after_priority_def sym_ERR_single_after_priorty_def
  sym_ERR_var_in_out_not_allowed_def sym_ERR_var_temp_not_allowed_def
  sym_ERR_variadic_fb_input_def sym_ERR_var_access_not_allowed_def
  sym_ERR_var_config_not_allowed_def sym_ERR_var_external_not_allowed_def
  sym_ERR_var_global_not_allowed_def sym_ERR_task_or_program_outside_resource_def
  sym_ERR_var_not_allowed_def sym_ERR_access_spec_in_method_prototype_def
  sym_ERR_method_decl_in_body_def sym_extern_pragma_def sym_extern_param_list_def
  sym_extern_result_def sym_wasm_pragma_def sym_warn_pragma_def sym_warn_pragma_level_def
  sym_allow_pragma_def sym_test_pragma_def sym_once_pragma_def sym_must_call_pragma_def
  sym_export_pragma_def sym_pou_pragma_def sym_constant_def sym_numeric_literal_def
  sym_int_literal_def sym_int_kind_def sym_signed_int_def sym_real_literal_def
  sym_signed_real_value_def sym_bool_literal_def sym_bool_literal_with_string_def
  sym_bool_literal_with_numeric_def sym_char_literal_def sym_char_str_def sym_time_literal_def
  sym_duration_def sym_time_def sym_ltime_def sym_time_of_day_def sym_tod_def sym_ltod_def
  sym_date_def sym_short_date_def sym_long_date_def sym_date_literal_def sym_date_and_time_def
  sym_short_date_and_time_def sym_long_date_and_time_def sym_date_and_daytime_def
  sym_data_type_access_def sym__elem_type_name_def sym_numeric_type_name_def sym_int_type_name_def
  sym_sign_int_type_name_def sym_unsign_int_type_name_def sym_real_type_name_def
  sym_string_type_name_def sym_string_name_def sym_char_name_def sym_bit_str_type_name_def
  sym_multibits_type_name_def sym_data_type_decl_def sym_type_decl_def sym_simple_type_spec_def
  sym_simple_type_init_def sym_subrange_type_spec_def sym_subrange_def sym_enum_type_spec_def
  sym_enum_spec_def sym_enum_value_spec_def sym_enum_value_def sym_array_type_spec_def
  sym_array_type_init_def sym_ranges_def sym_struct_type_spec_def sym_struct_type_init_def
  sym_init_elem_def sym__array_item_def sym_array_init_def sym_element_at_def
  sym__element_value_def sym_array_index_elem_def sym_array_values_def sym_repeat_values_def
  sym_struct_init_def sym_struct_elem_def sym_struct_elem_decl_def
  sym_struct_elem_decl_attributes_def sym_relative_located_at_def sym_relative_direct_variable_def
  sym_relative_offset_def sym_direct_variable_def sym_offset_def sym_ref_type_spec_def
  sym_ref_spec_def sym_ref_value_def sym_ref_addr_def sym_deref_expression_def sym_variable_def
  sym_var_access_def sym_input_decls_def sym_input_var_def sym__input_var_kind_def
  sym_variadic_decl_def sym_edge_decl_def sym_var_decl_init_def sym_var_decl_def
  sym_variable_list_def sym_array_conformand_def sym_conformand_dimension_def sym_output_decls_def
  sym_output_var_def sym__output_var_kind_def sym_in_out_decls_def sym_in_out_var_def
  sym__in_out_var_kind_def sym_var_decls_def sym_retain_var_decls_def sym_var_decl_init_list_def
  sym_loc_var_decl_def sym_temp_var_decls_def sym_temp_var_def sym__temp_var_kind_def
  sym_external_var_decls_def sym_external_decl_def sym__external_var_kind_def
  sym_global_var_decls_def sym_global_var_decl_def sym__global_var_kind_def
  sym_global_var_spec_def sym_loc_var_spec_init_def sym_located_at_def sym_loc_partly_var_decl_def
  sym_loc_partly_var_def sym_var_spec_def sym_func_decl_def sym__func_variables_def
  sym_func_body_def sym_fb_decl_def sym__fb_variables_def sym_fb_input_decls_def
  sym_fb_input_var_def sym__fb_input_var_kind_def sym_fb_output_decls_def sym_fb_output_var_def
  sym__fb_output_var_kind_def sym_no_retain_var_decls_def sym_fb_body_def sym_method_decl_def
  sym__method_decl_variables_def sym_class_decl_def sym__class_variables_def
  sym_interface_decl_def sym_method_prototype_def sym__method_prot_variables_def
  sym_interface_name_list_def sym_access_spec_def sym_prog_decl_def sym_prog_access_decls_def
  sym_prog_access_decl_def sym_SFC_def sym_SFC_network_def sym_initial_step_def sym_step_def
  sym_step_name_def sym_action_association_def sym_action_name_def sym_action_qualifier_def
  sym_action_time_def sym_transition_def sym_transition_name_def sym_steps_def
  sym_transition_cond_def sym_action_def sym_config_decl_def sym__config_variables_def
  sym_resource_decl_def sym_single_resource_decl_def sym_access_decls_def sym_access_decl_def
  sym_access_path_def sym_access_direction_def sym_task_config_def sym_task_init_def
  sym_data_source_def sym_prog_config_def sym_prog_conf_elems_def sym_prog_conf_elem_def
  sym_fb_task_def sym_prog_cnxn_def sym_prog_data_source_def sym_data_sink_def sym_config_init_def
  sym_config_inst_init_def sym_namespace_decl_def sym_namespace_elements_def
  sym_namespace_h_name_def sym_using_directive_def sym__expression_def sym_fold_expression_def
  sym_pack_element_def sym_fold_operator_def sym__primary_expression_def
  sym_parenthesized_expression_def sym_boolean_operator_def sym_or_operator_def
  sym_xor_operator_def sym_and_operator_def sym_comparison_operator_def sym_eq_operator_def
  sym_ord_operator_def sym_eq_def sym_ord_def sym_add_operator_def sym_add_def
  sym_mult_operator_def sym_mult_def sym_power_operator_def sym_unary_operator_def sym_unary_def
  sym_constant_expr_def sym_variable_access_def sym_multibit_part_access_def sym_multibit_def
  sym_func_call_def sym_stmt_list_def sym__stmt_def sym_assign_def sym_assignment_def
  sym_param_assign_def sym_param_assign_input_def sym_param_assign_output_def sym_if_stmt_def
  sym_else_if_stmt_def sym_case_stmt_def sym_case_selection_def sym_case_body_def
  sym_case_list_def sym_case_list_elem_def sym_for_stmt_def sym_for_list_def sym_while_stmt_def
  sym_repeat_stmt_def sym_raise_stmt_def sym_try_stmt_def sym_catch_clause_def
  sym_finally_clause_def sym_ERR_clause_outside_try_def sym_ERR_end_try_spelling_def
  sym_namespace_access_def sym_scoped_identifier_def sym__path_def sym_begin_path_expression_def
  sym_invocation_def sym_any_invocation_def sym_any_invocation_kind_def sym_this_invocation_def
  sym_super_invocation_def sym_super_body_invocation_def sym_path_expression_def
  sym_field_expression_def sym_index_expression_def sym_index_value_def sym_IQM_def
  sym_ladder_diagram_def sym_fb_diagram_def aux_sym_source_file_repeat1_def
  aux_sym_ERR_doubled_qualifier_repeat1_def aux_sym_ERR_doubled_retain_repeat1_def
  aux_sym_ERR_class_variables_after_method_repeat1_def
  aux_sym_ERR_fb_variables_after_method_repeat1_def aux_sym_extern_param_list_repeat1_def
  aux_sym_allow_pragma_repeat1_def aux_sym_data_type_decl_repeat1_def
  aux_sym_enum_spec_repeat1_def aux_sym_array_type_init_repeat1_def aux_sym_ranges_repeat1_def
  aux_sym_struct_type_spec_repeat1_def aux_sym_struct_type_init_repeat1_def
  aux_sym_struct_init_repeat1_def aux_sym_relative_offset_repeat1_def
  aux_sym_ref_type_spec_repeat1_def aux_sym_deref_expression_repeat1_def
  aux_sym_input_decls_repeat1_def aux_sym_variable_list_repeat1_def
  aux_sym_array_conformand_repeat1_def aux_sym_output_decls_repeat1_def
  aux_sym_in_out_decls_repeat1_def aux_sym_var_decls_repeat1_def
  aux_sym_temp_var_decls_repeat1_def aux_sym_external_var_decls_repeat1_def
  aux_sym_global_var_decls_repeat1_def aux_sym_global_var_spec_repeat1_def
  aux_sym_loc_partly_var_decl_repeat1_def aux_sym_func_decl_repeat1_def
  aux_sym_func_decl_repeat2_def aux_sym_func_decl_repeat3_def aux_sym_fb_decl_repeat1_def
  aux_sym_fb_decl_repeat2_def aux_sym_fb_decl_repeat3_def aux_sym_fb_input_decls_repeat1_def
  aux_sym_fb_output_decls_repeat1_def aux_sym_method_decl_repeat1_def
  aux_sym_interface_decl_repeat1_def aux_sym_method_prototype_repeat1_def
  aux_sym_interface_name_list_repeat1_def aux_sym_prog_decl_repeat1_def
  aux_sym_prog_access_decls_repeat1_def aux_sym_SFC_repeat1_def aux_sym_SFC_network_repeat1_def
  aux_sym_initial_step_repeat1_def aux_sym_action_association_repeat1_def
  aux_sym_steps_repeat1_def aux_sym_config_decl_repeat1_def aux_sym_resource_decl_repeat1_def
  aux_sym_access_decls_repeat1_def aux_sym_prog_conf_elems_repeat1_def
  aux_sym_config_init_repeat1_def aux_sym_namespace_elements_repeat1_def
  aux_sym_namespace_h_name_repeat1_def aux_sym_using_directive_repeat1_def
  aux_sym_func_call_repeat1_def aux_sym_stmt_list_repeat1_def aux_sym_if_stmt_repeat1_def
  aux_sym_case_stmt_repeat1_def aux_sym_case_list_repeat1_def aux_sym_try_stmt_repeat1_def
  aux_sym_index_value_repeat1_def aux_sym_ladder_diagram_repeat1_def
  aux_sym_fb_diagram_repeat1_def alias_sym_deref_sign_def alias_sym_field_def
  alias_sym_fold_and_def alias_sym_fold_div_def alias_sym_fold_eq_def alias_sym_fold_ge_def
  alias_sym_fold_gt_def alias_sym_fold_le_def alias_sym_fold_lt_def alias_sym_fold_minus_def
  alias_sym_fold_mod_def alias_sym_fold_mul_def alias_sym_fold_ne_def alias_sym_fold_plus_def
  alias_sym_fold_power_def alias_sym_fold_xor_def alias_sym_internal_def alias_sym_partly_def
  alias_sym_ref_to_def alias_sym_target_def

end
