(* ===== verification/C_Initializers.thy ===== *)
theory C_Initializers
  imports Rk_Prelude
begin

text \<open>
  The array initialisers of C with designators, as the generated tables of \<open>parser.c\<close> use them. An
  element \<open>[i] = v\<close> goes to index \<open>i\<close>, an element with no designator follows the one before it, and
  an element that is never named is 0 (here a given default).
\<close>

section \<open>One value for each designator\<close>

definition designated :: "nat \<Rightarrow> 'a \<Rightarrow> (nat \<times> 'a) list \<Rightarrow> 'a list" where
  "designated n d es = foldl (\<lambda>xs (i, v). xs[i := v]) (replicate n d) es"

text \<open>An array of no declared size is as long as its largest designator asks for.\<close>

definition designated_unsized :: "'a \<Rightarrow> (nat \<times> 'a) list \<Rightarrow> 'a list" where
  "designated_unsized d es = designated (fold (\<lambda>(i, v). max (i + 1)) es 0) d es"

fun increasing_from :: "nat \<Rightarrow> (nat \<times> 'a) list \<Rightarrow> bool" where
  "increasing_from i [] = True"
| "increasing_from i ((j, v) # es) = (i \<le> j \<and> increasing_from (j + 1) es)"

lemma increasing_weak: "i = i' \<Longrightarrow> increasing_from i es = increasing_from i' es"
  by simp

text \<open>The index after the last designator.\<close>

fun after_designators :: "nat \<Rightarrow> (nat \<times> 'a) list \<Rightarrow> nat" where
  "after_designators i [] = i"
| "after_designators i ((j, v) # es) = after_designators (j + 1) es"

lemma after_weak: "i = i' \<Longrightarrow> after_designators i es = after_designators i' es"
  by simp

lemmas designators_weak = increasing_weak after_weak list_all_weak

lemma increasing_append:
  "increasing_from i (es @ fs) \<longleftrightarrow>
     increasing_from i es \<and> increasing_from (after_designators i es) fs"
  by (induction i es rule: increasing_from.induct) auto

lemma after_append:
  "after_designators i (es @ fs) = after_designators (after_designators i es) fs"
  by (induction i es rule: after_designators.induct) auto

lemma increasing_le: "increasing_from i es \<Longrightarrow> i \<le> after_designators i es"
  by (induction i es rule: increasing_from.induct) auto

lemma increasing_bounds:
  "increasing_from i es \<Longrightarrow> (k, v) \<in> set es \<Longrightarrow> i \<le> k \<and> k < after_designators i es"
proof (induction i es rule: increasing_from.induct)
  case (2 i j w es)
  then show ?case
    using increasing_le[of "j + 1" es] by fastforce
qed simp

lemma after_max:
  "increasing_from i es \<Longrightarrow> fold (\<lambda>(i, v). max (i + 1)) es i = after_designators i es"
  by (induction i es rule: increasing_from.induct) (auto simp: max_def)

lemma increasing_distinct: "increasing_from i es \<Longrightarrow> distinct (map fst es)"
proof (induction i es rule: increasing_from.induct)
  case (2 i j v es)
  then show ?case
    using increasing_bounds by fastforce
qed simp

lemma increasing_map [simp]:
  "increasing_from i (map (map_prod id f) es) \<longleftrightarrow> increasing_from i es"
  "after_designators i (map (map_prod id f) es) = after_designators i es"
  by (induction i es rule: increasing_from.induct) simp_all

text \<open>As many designators as indices are all of them.\<close>

lemma increasing_length: "increasing_from i es \<Longrightarrow> i + length es \<le> after_designators i es"
  by (induction i es rule: increasing_from.induct) auto

lemma increasing_dense:
  "increasing_from i es \<Longrightarrow> after_designators i es = i + length es \<Longrightarrow>
     map fst es = [i..<i + length es]"
proof (induction i es rule: increasing_from.induct)
  case (2 i j v es)
  have "j = i"
    using 2 increasing_length[of "j + 1" es] by auto
  with 2 show ?case
    by (simp add: upt_rec)
qed simp

lemma length_designated [simp]: "length (designated n d es) = n"
proof -
  have "length (foldl (\<lambda>xs (i, v). xs[i := v]) xs es) = length xs" for xs :: "'a list"
    by (induction es arbitrary: xs) auto
  then show ?thesis
    by (simp add: designated_def)
qed

lemma designated_keeps:
  "k \<notin> fst ` set es \<Longrightarrow> foldl (\<lambda>xs (i, v). xs[i := v]) xs es ! k = xs ! k"
  by (induction es arbitrary: xs) auto

lemma nth_designated:
  assumes "distinct (map fst es)" and "k < n"
  shows "designated n d es ! k = (case map_of es k of None \<Rightarrow> d | Some v \<Rightarrow> v)"
proof -
  have "foldl (\<lambda>xs (i, v). xs[i := v]) xs es ! k = (case map_of es k of None \<Rightarrow> xs ! k | Some v \<Rightarrow> v)"
    if "k < length xs" for xs :: "'a list"
    using assms(1) that
  proof (induction es arbitrary: xs)
    case (Cons e es)
    obtain i v where e: "e = (i, v)"
      by (cases e)
    show ?case
    proof (cases "k = i")
      case True
      then have "k \<notin> fst ` set es"
        using Cons.prems(1) e by simp
      moreover from this have "map_of es k = None"
        by (simp add: map_of_eq_None_iff)
      ultimately show ?thesis
        using Cons.prems(2) True e by (simp add: designated_keeps)
    next
      case False
      then show ?thesis
        using Cons.IH[of "xs[i := v]"] Cons.prems e by (simp split: option.split)
    qed
  qed simp
  from this[of "replicate n d"] show ?thesis
    using assms(2) by (simp add: designated_def split: option.split)
qed

lemma designated_cases:
  "k < n \<Longrightarrow> designated n d es ! k = d \<and> k \<notin> fst ` set es \<or> (k, designated n d es ! k) \<in> set es"
  unfolding designated_def
proof (induction es rule: rev_induct)
  case (snoc e es)
  have "length (foldl (\<lambda>xs (i, v). xs[i := v]) (replicate n d) es) = n"
    using length_designated[of n d es] by (simp add: designated_def)
  with snoc show ?case
    by (cases e; cases "fst e = k") auto
qed simp

lemma designated_entries:
  assumes "distinct (map fst es)" and "list_all (\<lambda>(k, v). k < n) es"
  shows "list_all (\<lambda>(k, v). designated n d es ! k = v) es"
  using assms by (auto simp: list_all_iff nth_designated)

text \<open>
  A condition on every index of an array, checked along the list of its designators: at those, and at
  the ones between two of them.
\<close>

fun every_index :: "(nat \<Rightarrow> 'a \<Rightarrow> bool) \<Rightarrow> 'a \<Rightarrow> nat \<Rightarrow> (nat \<times> 'a) list \<Rightarrow> bool" where
  "every_index P d i [] = True"
| "every_index P d i ((j, v) # es) =
     (list_all (\<lambda>k. P k d) [i..<j] \<and> P j v \<and> every_index P d (j + 1) es)"

lemma every_index_append:
  "every_index P d i (es @ fs) \<longleftrightarrow>
     every_index P d i es \<and> every_index P d (after_designators i es) fs"
  by (induction P d i es rule: every_index.induct) auto

lemma range_split:
  fixes i j m :: nat
  assumes "i \<le> j" and "j + 1 \<le> m"
  shows "(\<forall>k. i \<le> k \<and> k < m \<longrightarrow> Q k) \<longleftrightarrow>
    (\<forall>k. i \<le> k \<and> k < j \<longrightarrow> Q k) \<and> Q j \<and> (\<forall>k. j + 1 \<le> k \<and> k < m \<longrightarrow> Q k)"
proof -
  have "{i..<m} = {i..<j} \<union> {j} \<union> {j + 1..<m}"
    using assms by auto
  then have "(\<forall>k \<in> {i..<m}. Q k) \<longleftrightarrow> (\<forall>k \<in> {i..<j}. Q k) \<and> Q j \<and> (\<forall>k \<in> {j + 1..<m}. Q k)"
    by blast
  then show ?thesis
    by (simp only: Ball_def atLeastLessThan_iff)
qed

lemma every_index_iff:
  assumes "increasing_from i es"
  shows "every_index P d i es \<longleftrightarrow>
    (\<forall>k. i \<le> k \<and> k < after_designators i es \<longrightarrow>
       P k (case map_of es k of None \<Rightarrow> d | Some v \<Rightarrow> v))"
  using assms
proof (induction P d i es rule: every_index.induct)
  case (2 P d i j v es)
  let ?Q = "\<lambda>k. P k (case map_of ((j, v) # es) k of None \<Rightarrow> d | Some v \<Rightarrow> v)"
  let ?m = "after_designators (j + 1) es"
  have inc: "increasing_from (j + 1) es" "i \<le> j"
    using 2 by auto
  have "map_of es k = None" if "k < j" for k
  proof (rule ccontr)
    assume "map_of es k \<noteq> None"
    then obtain w where "(k, w) \<in> set es"
      using map_of_SomeD by fastforce
    then show False
      using increasing_bounds[OF inc(1)] that by fastforce
  qed
  then have before: "P k d \<longleftrightarrow> ?Q k" if "k < j" for k
    using that by simp
  have "(\<forall>k. i \<le> k \<and> k < ?m \<longrightarrow> ?Q k) \<longleftrightarrow>
      (\<forall>k. i \<le> k \<and> k < j \<longrightarrow> ?Q k) \<and> ?Q j \<and> (\<forall>k. j + 1 \<le> k \<and> k < ?m \<longrightarrow> ?Q k)"
    by (rule range_split[OF inc(2) increasing_le[OF inc(1)]])
  moreover have "(\<forall>k. i \<le> k \<and> k < j \<longrightarrow> ?Q k) \<longleftrightarrow> list_all (\<lambda>k. P k d) [i..<j]"
    using before by (auto simp: list_all_iff)
  moreover have "every_index P d (j + 1) es \<longleftrightarrow> (\<forall>k. j + 1 \<le> k \<and> k < ?m \<longrightarrow> ?Q k)"
    using "2.IH"[OF inc(1)] by simp
  ultimately show ?case
    by simp
qed auto

section \<open>Runs of values after a designator\<close>

definition put_run :: "'a \<Rightarrow> 'a list \<Rightarrow> nat \<times> 'a list \<Rightarrow> 'a list" where
  "put_run d xs = (\<lambda>(i, vs).
     take i (xs @ replicate (i - length xs) d) @ vs @ drop (i + length vs) xs)"

definition runs :: "'a \<Rightarrow> (nat \<times> 'a list) list \<Rightarrow> 'a list" where
  "runs d rs = foldl (put_run d) [] rs"

fun tiled_from :: "nat \<Rightarrow> (nat \<times> 'a list) list \<Rightarrow> bool" where
  "tiled_from i [] = True"
| "tiled_from i ((j, vs) # rs) = (i = j \<and> tiled_from (j + length vs) rs)"

text \<open>The length of a run, computed as a numeral.\<close>

fun run_length :: "'a list \<Rightarrow> nat" where
  "run_length [] = 0"
| "run_length (v # vs) = run_length vs + 1"

lemmas run_length_simps =
  run_length.simps add_0_left one_add_one numeral_plus_one add_num_simps

lemma run_length: "run_length vs = length vs"
  by (induction vs) simp_all

fun after_runs :: "nat \<Rightarrow> (nat \<times> 'a list) list \<Rightarrow> nat" where
  "after_runs i [] = i"
| "after_runs i ((j, vs) # rs) = after_runs (j + length vs) rs"

lemma tiled_weak: "i = i' \<Longrightarrow> tiled_from i rs = tiled_from i' rs"
  by simp

lemma after_runs_weak: "i = i' \<Longrightarrow> after_runs i rs = after_runs i' rs"
  by simp

lemmas runs_weak = tiled_weak after_runs_weak list_all_weak

lemma tiled_append:
  "tiled_from i (rs @ ts) \<longleftrightarrow> tiled_from i rs \<and> tiled_from (after_runs i rs) ts"
  by (induction i rs rule: tiled_from.induct) auto

lemma after_runs_append: "after_runs i (rs @ ts) = after_runs (after_runs i rs) ts"
  by (induction i rs rule: after_runs.induct) auto

lemma after_runs_length:
  "tiled_from i rs \<Longrightarrow> after_runs i rs = i + length (concat (map snd rs))"
  by (induction i rs rule: tiled_from.induct) auto

lemma runs_concat:
  assumes "tiled_from 0 rs"
  shows "runs d rs = concat (map snd rs)"
proof -
  have "tiled_from (length xs) rs \<Longrightarrow> foldl (put_run d) xs rs = xs @ concat (map snd rs)" for xs
  proof (induction rs arbitrary: xs)
    case (Cons r rs)
    then show ?case
      by (cases r) (simp add: put_run_def flip: length_append)
  qed simp
  from this[of "[]"] assms show ?thesis
    by (simp add: runs_def)
qed

text \<open>What a slice of the array that starts at a designator holds.\<close>

lemma run_at:
  assumes "tiled_from 0 rs" and "(i, vs) \<in> set rs"
  shows "take (length vs) (drop i (runs d rs)) = vs"
proof -
  obtain ps ts where rs: "rs = ps @ (i, vs) # ts"
    using assms(2) by (meson split_list)
  then have "i = after_runs 0 ps" "tiled_from 0 ps"
    using assms(1) by (simp_all add: tiled_append)
  then have "i = length (concat (map snd ps))"
    by (simp add: after_runs_length)
  then show ?thesis
    unfolding runs_concat[OF assms(1)] by (simp add: rs)
qed

section \<open>Arrays without designators\<close>

text \<open>The elements with their indices, counted in numerals.\<close>

fun numbered :: "nat \<Rightarrow> 'a list \<Rightarrow> (nat \<times> 'a) list" where
  "numbered i [] = []"
| "numbered i (v # vs) = (i, v) # numbered (i + 1) vs"

lemmas numbered_simps = numbered.simps add_0_left one_add_one numeral_plus_one add_num_simps

lemma numbered_append: "numbered i (xs @ ys) = numbered i xs @ numbered (i + length xs) ys"
  by (induction xs arbitrary: i) simp_all

lemma numbered_enumerate: "numbered i xs = enumerate i xs"
  by (induction xs arbitrary: i) simp_all

lemma numbered_nth: "list_all (\<lambda>(i, v). xs ! i = v) (numbered 0 xs)"
  by (auto simp: numbered_enumerate list_all_iff in_set_enumerate_eq)

lemma numbered_all: "list_all (\<lambda>(i, v). P i v) (numbered 0 xs) \<longleftrightarrow> (\<forall>i < length xs. P i (xs ! i))"
  by (auto simp: numbered_enumerate list_all_iff in_set_enumerate_eq)

section \<open>Interfaces of the tables\<close>

text \<open>
  A table of one value for each designator, and one of runs, with what reading it relies on: the
  designators are in order, and the runs leave no gap.
\<close>

locale designated_table =
  fixes size :: nat and default :: 'a and es :: "(nat \<times> 'a) list" and table :: "'a list"
  assumes increasing: "increasing_from 0 es"
    and fits: "after_designators 0 es \<le> size"
    and table: "table = designated size default es"
begin

lemma length_table: "length table = size"
  by (simp add: table)

lemma table_at: "(k, v) \<in> set es \<Longrightarrow> table ! k = v"
  using increasing fits increasing_bounds[OF increasing] increasing_distinct[OF increasing]
  by (fastforce simp: table nth_designated)

lemma table_entries: "list_all (\<lambda>(k, v). table ! k = v) es"
  using table_at by (auto simp: list_all_iff)

lemma table_every_index: "every_index (\<lambda>k v. table ! k = v) default 0 es"
  using fits increasing_distinct[OF increasing]
  by (simp add: every_index_iff[OF increasing] table nth_designated)

lemma table_all:
  assumes "every_index P default 0 es" and "k < after_designators 0 es"
  shows "P k (table ! k)"
  using assms fits increasing_distinct[OF increasing]
  by (simp add: every_index_iff[OF increasing] table nth_designated)

lemma table_dense:
  assumes "length es = size" and "list_all (\<lambda>(k, v). P k v) es" and "k < size"
  shows "P k (table ! k)"
proof -
  have "map fst es = [0..<size]"
    using increasing_dense[OF increasing] increasing_length[OF increasing] fits assms(1) by simp
  with assms(3) have "k \<in> set (map fst es)"
    by simp
  then obtain v where "(k, v) \<in> set es"
    by auto
  with assms(2) show ?thesis
    using table_at by (auto simp: list_all_iff)
qed

lemma table_default:
  assumes "\<And>k. P k default" and "list_all (\<lambda>(k, v). P k v) es" and "k < size"
  shows "P k (table ! k)"
  using assms increasing_distinct[OF increasing]
  by (auto simp: table nth_designated list_all_iff split: option.split dest: map_of_SomeD)

end

lemma designated_unsized:
  "increasing_from 0 es \<Longrightarrow> designated_unsized d es = designated (after_designators 0 es) d es"
  using after_max[of 0 es] by (simp add: designated_unsized_def)

locale run_table =
  fixes default :: 'a and rs :: "(nat \<times> 'a list) list" and table :: "'a list"
  assumes tiled: "tiled_from 0 rs" and table: "table = runs default rs"
begin

lemma table_concat: "table = concat (map snd rs)"
  by (simp add: table runs_concat[OF tiled])

lemma length_table: "length table = after_runs 0 rs"
  by (simp add: table_concat after_runs_length[OF tiled])

lemma table_bound:
  assumes "(i, vs) \<in> set rs"
  shows "i + length vs \<le> length table"
proof -
  obtain ps ts where rs: "rs = ps @ (i, vs) # ts"
    using assms by (meson split_list)
  then have "tiled_from 0 ps" "i = after_runs 0 ps"
    using tiled by (simp_all add: tiled_append)
  then show ?thesis
    unfolding table_concat by (simp add: rs after_runs_length)
qed

lemma table_runs: "list_all (\<lambda>(i, vs). take (length vs) (drop i table) = vs) rs"
  using run_at[OF tiled] by (auto simp: list_all_iff table)

end

end
