(* ===== verification/Symbol_Tables.thy ===== *)
theory Symbol_Tables
  imports Grammar_Symbols C_Initializers
begin

text \<open>
  What the language says of each symbol, from \<open>src/crates/tree-sitter/src/parser.c\<close>: its name, the
  symbol shown in its place, whether a tree shows it and how, and the subtypes of a supertype. The
  arrays are the initialisers of the source, cut into parts of at most 150 lines.
\<close>

section \<open>Names\<close>

text \<open>Lines 629 to 778.\<close>

definition ts_symbol_names_1 :: "(TSSymbol \<times> string) list" where
  "ts_symbol_names_1 =
    [(ts_builtin_sym_end, ''end''), (sym_identifier, ''identifier''),
     (aux_sym_ERR_implements_before_extends_token1, ''IMPLEMENTS''),
     (aux_sym_ERR_extends_multiple_times_token1, ''EXTENDS''),
     (aux_sym_ERR_doubled_qualifier_token1, ''RETAIN''),
     (aux_sym_ERR_doubled_qualifier_token2, ''NON_RETAIN''),
     (aux_sym_ERR_doubled_retain_token1, ''CONSTANT''),
     (aux_sym_ERR_invalid_edge_qualifier_token1, ''ERR_invalid_edge_qualifier_token1''),
     (anon_sym_COLON_EQ, '':=''), (anon_sym_EQ, ''=''), (anon_sym_COLON, '':''),
     (anon_sym_EQ_GT, ''=>''), (aux_sym_ERR_unexpected_this_in_path_token1, ''THIS''),
     (aux_sym_ERR_unexpected_super_in_path_token1, ''SUPER''), (anon_sym_COMMA, '',''),
     (aux_sym_ERR_single_after_interval_token1, ''SINGLE''),
     (aux_sym_ERR_interval_after_priority_token1, ''INTERVAL''),
     (sym_line_comment, ''line_comment''), (anon_sym_LBRACE, ''{''), (anon_sym_extern, ''extern''),
     (anon_sym_RBRACE, ''}''), (anon_sym_LPAREN, ''(''), (anon_sym_params, ''params''),
     (anon_sym_RPAREN, '')''), (anon_sym_result, ''result''), (anon_sym_wasm, ''wasm''),
     (sym_pragma_string, ''pragma_string''), (anon_sym_warn, ''warn''), (anon_sym_info, ''info''),
     (anon_sym_allow, ''allow''), (aux_sym_test_pragma_token1, ''test_pragma_token1''),
     (aux_sym_once_pragma_token1, ''once_pragma_token1''),
     (aux_sym_must_call_pragma_token1, ''must_call_pragma_token1''),
     (aux_sym_export_pragma_token1, ''export_pragma_token1''), (anon_sym_POUND, ''#''),
     (sym_unsigned_int, ''unsigned_int''), (sym__explicit_signed_int, ''_explicit_signed_int''),
     (sym_binary_int, ''binary_int''), (sym_octal_int, ''octal_int''), (sym_hex_int, ''hex_int''),
     (sym__explicit_signed_real, ''_explicit_signed_real''), (sym_real_value, ''real_value''),
     (aux_sym_bool_literal_with_string_token1, ''BOOL#''),
     (aux_sym_bool_literal_with_string_token2, ''TRUE''),
     (aux_sym_bool_literal_with_string_token3, ''FALSE''), (anon_sym_0, ''0''), (anon_sym_1, ''1''),
     (sym_s_byte_char_str, ''s_byte_char_str''), (sym_d_byte_char_str, ''d_byte_char_str''),
     (aux_sym_time_token1, ''time_type_name''), (anon_sym_PLUS, ''+''), (anon_sym_DASH, ''-''),
     (aux_sym_ltime_token1, ''l_time_type_name''), (sym_time_value, ''time_value''),
     (aux_sym_tod_token1, ''tod_type_name''), (aux_sym_ltod_token1, ''ltod_type_name''),
     (sym_daytime, ''daytime''), (aux_sym_short_date_token1, ''date_type_name''),
     (aux_sym_long_date_token1, ''date_type_name''),
     (aux_sym_date_literal_token1, ''date_literal_token1''),
     (aux_sym_short_date_and_time_token1, ''date_and_time_type_name''),
     (aux_sym_long_date_and_time_token1, ''l_date_and_time_type_name''),
     (aux_sym_sign_int_type_name_token1, ''sint_name''),
     (aux_sym_sign_int_type_name_token2, ''int_name''),
     (aux_sym_sign_int_type_name_token3, ''dint_name''),
     (aux_sym_sign_int_type_name_token4, ''lint_name''),
     (aux_sym_unsign_int_type_name_token1, ''usint_name''),
     (aux_sym_unsign_int_type_name_token2, ''uint_name''),
     (aux_sym_unsign_int_type_name_token3, ''udint_name''),
     (aux_sym_unsign_int_type_name_token4, ''ulint_name''),
     (aux_sym_real_type_name_token1, ''real_name''),
     (aux_sym_real_type_name_token2, ''lreal_name''), (aux_sym_string_name_token1, ''STRING''),
     (anon_sym_LBRACK, ''[''), (anon_sym_RBRACK, '']''), (aux_sym_char_name_token1, ''CHAR''),
     (sym_time_type_name, ''time_type_name''), (sym_l_time_type_name, ''l_time_type_name''),
     (sym_date_type_name, ''date_type_name''), (sym_l_date_type_name, ''l_date_type_name''),
     (sym_tod_type_name, ''tod_type_name''), (sym_ltod_type_name, ''ltod_type_name''),
     (sym_dt_type_name, ''dt_type_name''), (sym_l_dt_type_name, ''l_dt_type_name''),
     (aux_sym_bit_str_type_name_token1, ''bool_name''),
     (aux_sym_multibits_type_name_token1, ''byte_name''),
     (aux_sym_multibits_type_name_token2, ''word_name''),
     (aux_sym_multibits_type_name_token3, ''dword_name''),
     (aux_sym_multibits_type_name_token4, ''lword_name''),
     (aux_sym_data_type_decl_token1, ''TYPE''), (anon_sym_SEMI, '';''),
     (aux_sym_data_type_decl_token2, ''END_TYPE''), (anon_sym_DOT_DOT, ''..''),
     (aux_sym_array_type_spec_token1, ''ARRAY''), (aux_sym_array_type_spec_token2, ''OF''),
     (aux_sym_struct_type_spec_token1, ''STRUCT''), (aux_sym_struct_type_spec_token2, ''OVERLAP''),
     (aux_sym_struct_type_spec_token3, ''END_STRUCT''),
     (aux_sym_relative_located_at_token1, ''AT''), (anon_sym_PERCENT, ''%''),
     (anon_sym_STAR, ''*''), (anon_sym_DOT, ''.''), (aux_sym_ref_type_spec_token1, ''REF_TO''),
     (aux_sym_ref_value_token1, ''null''), (aux_sym_ref_addr_token1, ''REF''),
     (anon_sym_CARET, ''deref_invocation''), (aux_sym_input_decls_token1, ''VAR_INPUT''),
     (aux_sym_input_decls_token2, ''END_VAR''), (anon_sym_DOT_DOT_DOT, ''...''),
     (aux_sym_edge_decl_token1, ''R_EDGE''), (aux_sym_edge_decl_token2, ''F_EDGE''),
     (aux_sym_output_decls_token1, ''VAR_OUTPUT''), (aux_sym_in_out_decls_token1, ''VAR_IN_OUT''),
     (aux_sym_var_decls_token1, ''VAR''), (aux_sym_temp_var_decls_token1, ''VAR_TEMP''),
     (aux_sym_external_var_decls_token1, ''VAR_EXTERNAL''),
     (aux_sym_global_var_decls_token1, ''VAR_GLOBAL''), (aux_sym_func_decl_token1, ''FUNCTION''),
     (aux_sym_func_decl_token2, ''END_FUNCTION''), (aux_sym_fb_decl_token1, ''FUNCTION_BLOCK''),
     (aux_sym_fb_decl_token2, ''FINAL''), (aux_sym_fb_decl_token3, ''ABSTRACT''),
     (aux_sym_fb_decl_token4, ''END_FUNCTION_BLOCK''), (aux_sym_method_decl_token1, ''METHOD''),
     (aux_sym_method_decl_token2, ''OVERRIDE''), (aux_sym_method_decl_token3, ''END_METHOD''),
     (aux_sym_class_decl_token1, ''CLASS''), (aux_sym_class_decl_token2, ''END_CLASS''),
     (aux_sym_interface_decl_token1, ''INTERFACE''),
     (aux_sym_interface_decl_token2, ''END_INTERFACE''), (aux_sym_access_spec_token1, ''public''),
     (aux_sym_access_spec_token2, ''protected''), (aux_sym_access_spec_token3, ''private''),
     (aux_sym_access_spec_token4, ''INTERNAL''), (aux_sym_prog_decl_token1, ''PROGRAM''),
     (aux_sym_prog_decl_token2, ''END_PROGRAM''),
     (aux_sym_prog_access_decls_token1, ''VAR_ACCESS''),
     (aux_sym_initial_step_token1, ''INITIAL_STEP''), (aux_sym_initial_step_token2, ''END_STEP''),
     (aux_sym_step_token1, ''STEP''), (anon_sym_N, ''N''), (anon_sym_R, ''R''), (anon_sym_S, ''S''),
     (anon_sym_P, ''P''), (anon_sym_L, ''L''), (anon_sym_D, ''D''),
     (aux_sym_action_qualifier_token1, ''SD''), (aux_sym_action_qualifier_token2, ''DS''),
     (aux_sym_action_qualifier_token3, ''SL''), (aux_sym_transition_token1, ''TRANSITION'')]"

text \<open>Lines 779 to 928.\<close>

definition ts_symbol_names_2 :: "(TSSymbol \<times> string) list" where
  "ts_symbol_names_2 =
    [(aux_sym_transition_token2, ''PRIORITY''), (aux_sym_transition_token3, ''FROM''),
     (aux_sym_transition_token4, ''TO''), (aux_sym_transition_token5, ''END_TRANSITION''),
     (aux_sym_action_token1, ''ACTION''), (aux_sym_action_token2, ''END_ACTION''),
     (aux_sym_config_decl_token1, ''CONFIGURATION''),
     (aux_sym_config_decl_token2, ''END_CONFIGURATION''),
     (aux_sym_resource_decl_token1, ''RESOURCE''), (aux_sym_resource_decl_token2, ''ON''),
     (aux_sym_resource_decl_token3, ''END_RESOURCE''),
     (aux_sym_access_direction_token1, ''read_write''),
     (aux_sym_access_direction_token2, ''read_only''), (aux_sym_task_config_token1, ''TASK''),
     (aux_sym_prog_config_token1, ''WITH''), (aux_sym_config_init_token1, ''VAR_CONFIG''),
     (aux_sym_namespace_decl_token1, ''NAMESPACE''),
     (aux_sym_namespace_decl_token2, ''END_NAMESPACE''),
     (aux_sym_using_directive_token1, ''USING''), (anon_sym_SLASH, ''/''),
     (anon_sym_STAR_STAR, ''**''), (anon_sym_AMP, ''&''), (anon_sym_PIPE, ''fold_or''),
     (anon_sym_LT_GT, ''<>''), (anon_sym_LT, ''<''), (anon_sym_GT, ''>''), (anon_sym_LT_EQ, ''<=''),
     (anon_sym_GT_EQ, ''>=''), (aux_sym_fold_operator_token1, ''fold_min''),
     (aux_sym_fold_operator_token2, ''fold_max''), (aux_sym_or_operator_token1, ''OR''),
     (aux_sym_xor_operator_token1, ''XOR''), (aux_sym_and_operator_token1, ''AND''),
     (aux_sym_mult_token1, ''MOD''), (aux_sym_unary_token1, ''NOT''),
     (aux_sym__stmt_token1, ''RETURN''), (aux_sym__stmt_token2, ''EXIT''),
     (aux_sym__stmt_token3, ''CONTINUE''), (aux_sym_if_stmt_token1, ''IF''),
     (aux_sym_if_stmt_token2, ''THEN''), (aux_sym_if_stmt_token3, ''ELSE''),
     (aux_sym_if_stmt_token4, ''END_IF''), (aux_sym_else_if_stmt_token1, ''ELSIF''),
     (aux_sym_case_stmt_token1, ''CASE''), (aux_sym_case_stmt_token2, ''END_CASE''),
     (aux_sym_for_stmt_token1, ''FOR''), (aux_sym_for_stmt_token2, ''DO''),
     (aux_sym_for_stmt_token3, ''END_FOR''), (aux_sym_for_list_token1, ''BY''),
     (aux_sym_while_stmt_token1, ''WHILE''), (aux_sym_while_stmt_token2, ''END_WHILE''),
     (aux_sym_repeat_stmt_token1, ''REPEAT''), (aux_sym_repeat_stmt_token2, ''UNTIL''),
     (aux_sym_repeat_stmt_token3, ''END_REPEAT''), (aux_sym_raise_stmt_token1, ''__RAISE''),
     (aux_sym_try_stmt_token1, ''__TRY''), (aux_sym_try_stmt_token2, ''__END_TRY''),
     (aux_sym_catch_clause_token1, ''__CATCH''), (aux_sym_finally_clause_token1, ''__FINALLY''),
     (aux_sym_ERR_end_try_spelling_token1, ''__ENDTRY''), (anon_sym_LPAREN_RPAREN, ''()''),
     (anon_sym_I, ''I''), (anon_sym_Q, ''Q''), (anon_sym_M, ''M''), (sym_ld_rung, ''ld_rung''),
     (sym_fbd_network, ''fbd_network''), (sym_adress_identifier, ''adress_identifier''),
     (sym_c_style_comment, ''c_style_comment''),
     (sym_pascal_style_comment, ''pascal_style_comment''), (sym_pragma, ''pragma''),
     (sym__minus_before_base, ''-''), (sym__plus_before_base, ''+''),
     (sym_source_file, ''source_file''),
     (sym_ERR_implements_before_extends, ''ERR_implements_before_extends''),
     (sym_ERR_implements_multiple_times, ''ERR_implements_multiple_times''),
     (sym_ERR_extends_multiple_times, ''ERR_extends_multiple_times''),
     (sym_ERR_doubled_qualifier, ''ERR_doubled_qualifier''),
     (sym_ERR_doubled_retain, ''ERR_doubled_retain''),
     (sym_ERR_doubled_non_retain, ''ERR_doubled_non_retain''),
     (sym_ERR_doubled_constant, ''ERR_doubled_constant''),
     (sym_ERR_doubled_global_qualifier, ''ERR_doubled_global_qualifier''),
     (sym_ERR_variable_with_no_spec, ''ERR_variable_with_no_spec''),
     (sym_ERR_config_entry_with_no_spec, ''ERR_config_entry_with_no_spec''),
     (sym_ERR_invalid_edge_qualifier, ''ERR_invalid_edge_qualifier''),
     (sym_ERR_empty_right_hand_assignment, ''ERR_empty_right_hand_assignment''),
     (sym_ERR_assign_func_call, ''ERR_assign_func_call''),
     (sym_ERR_missing_dot_in_assignment, ''ERR_missing_dot_in_assignment''),
     (sym_ERR_missing_equal_in_assignment, ''ERR_missing_equal_in_assignment''),
     (sym_ERR_missing_dot_in_for_control, ''ERR_missing_dot_in_for_control''),
     (sym_ERR_missing_equal_in_for_control, ''ERR_missing_equal_in_for_control''),
     (sym_ERR_assign_in_condition, ''ERR_assign_in_condition''),
     (sym_ERR_output_assign_in_assignment, ''ERR_output_assign_in_assignment''),
     (sym_ERR_output_assign_in_for_control, ''ERR_output_assign_in_for_control''),
     (sym_ERR_unexpected_this_in_path, ''ERR_unexpected_this_in_path''),
     (sym_ERR_unexpected_super_in_path, ''ERR_unexpected_super_in_path''),
     (sym_ERR_func_call_in_init, ''ERR_func_call_in_init''),
     (sym_ERR_class_variables_after_method, ''ERR_class_variables_after_method''),
     (sym_ERR_fb_variables_after_method, ''ERR_fb_variables_after_method''),
     (sym_ERR_program_not_allowed_in_namespace, ''ERR_program_not_allowed_in_namespace''),
     (sym_ERR_config_not_allowed_in_namespace, ''ERR_config_not_allowed_in_namespace''),
     (sym_ERR_single_after_interval, ''ERR_single_after_interval''),
     (sym_ERR_interval_after_priority, ''ERR_interval_after_priority''),
     (sym_ERR_single_after_priorty, ''ERR_single_after_priorty''),
     (sym_ERR_var_in_out_not_allowed, ''ERR_var_in_out_not_allowed''),
     (sym_ERR_var_temp_not_allowed, ''ERR_var_temp_not_allowed''),
     (sym_ERR_variadic_fb_input, ''ERR_variadic_fb_input''),
     (sym_ERR_var_access_not_allowed, ''ERR_var_access_not_allowed''),
     (sym_ERR_var_config_not_allowed, ''ERR_var_config_not_allowed''),
     (sym_ERR_var_external_not_allowed, ''ERR_var_external_not_allowed''),
     (sym_ERR_var_global_not_allowed, ''ERR_var_global_not_allowed''),
     (sym_ERR_task_or_program_outside_resource, ''ERR_task_or_program_outside_resource''),
     (sym_ERR_var_not_allowed, ''ERR_var_not_allowed''),
     (sym_ERR_access_spec_in_method_prototype, ''ERR_access_spec_in_method_prototype''),
     (sym_ERR_method_decl_in_body, ''ERR_method_decl_in_body''),
     (sym_extern_pragma, ''extern_pragma''), (sym_extern_param_list, ''extern_param_list''),
     (sym_extern_result, ''extern_result''), (sym_wasm_pragma, ''wasm_pragma''),
     (sym_warn_pragma, ''warn_pragma''), (sym_warn_pragma_level, ''warn_pragma_level''),
     (sym_allow_pragma, ''allow_pragma''), (sym_test_pragma, ''test_pragma''),
     (sym_once_pragma, ''once_pragma''), (sym_must_call_pragma, ''must_call_pragma''),
     (sym_export_pragma, ''export_pragma''), (sym_pou_pragma, ''pou_pragma''),
     (sym_constant, ''constant''), (sym_numeric_literal, ''numeric_literal''),
     (sym_int_literal, ''int_literal''), (sym_int_kind, ''int_kind''),
     (sym_signed_int, ''signed_int''), (sym_real_literal, ''real_literal''),
     (sym_signed_real_value, ''signed_real_value''), (sym_bool_literal, ''bool_literal''),
     (sym_bool_literal_with_string, ''bool_literal_with_string''),
     (sym_bool_literal_with_numeric, ''bool_literal_with_numeric''),
     (sym_char_literal, ''char_literal''), (sym_char_str, ''char_str''),
     (sym_time_literal, ''time_literal''), (sym_duration, ''duration''), (sym_time, ''time''),
     (sym_ltime, ''ltime''), (sym_time_of_day, ''time_of_day''), (sym_tod, ''tod''),
     (sym_ltod, ''ltod''), (sym_date, ''date''), (sym_short_date, ''short_date''),
     (sym_long_date, ''long_date''), (sym_date_literal, ''date_literal''),
     (sym_date_and_time, ''date_and_time'')]"

text \<open>Lines 929 to 1078.\<close>

definition ts_symbol_names_3 :: "(TSSymbol \<times> string) list" where
  "ts_symbol_names_3 =
    [(sym_short_date_and_time, ''short_date_and_time''),
     (sym_long_date_and_time, ''long_date_and_time''), (sym_date_and_daytime, ''date_and_daytime''),
     (sym_data_type_access, ''data_type_access''), (sym__elem_type_name, ''_elem_type_name''),
     (sym_numeric_type_name, ''numeric_type_name''), (sym_int_type_name, ''int_type_name''),
     (sym_sign_int_type_name, ''sign_int_type_name''),
     (sym_unsign_int_type_name, ''unsign_int_type_name''), (sym_real_type_name, ''real_type_name''),
     (sym_string_type_name, ''string_type_name''), (sym_string_name, ''string_name''),
     (sym_char_name, ''char_name''), (sym_bit_str_type_name, ''bit_str_type_name''),
     (sym_multibits_type_name, ''multibits_type_name''), (sym_data_type_decl, ''data_type_decl''),
     (sym_type_decl, ''type_decl''), (sym_simple_type_spec, ''simple_type_spec''),
     (sym_simple_type_init, ''simple_type_init''), (sym_subrange_type_spec, ''subrange_type_spec''),
     (sym_subrange, ''subrange''), (sym_enum_type_spec, ''enum_type_spec''),
     (sym_enum_spec, ''enum_spec''), (sym_enum_value_spec, ''enum_value_spec''),
     (sym_enum_value, ''enum_value''), (sym_array_type_spec, ''array_type_spec''),
     (sym_array_type_init, ''array_type_init''), (sym_ranges, ''ranges''),
     (sym_struct_type_spec, ''struct_type_spec''), (sym_struct_type_init, ''struct_type_init''),
     (sym_init_elem, ''init_elem''), (sym__array_item, ''_array_item''),
     (sym_array_init, ''array_init''), (sym_element_at, ''element_at''),
     (sym__element_value, ''_element_value''), (sym_array_index_elem, ''array_index_elem''),
     (sym_array_values, ''array_values''), (sym_repeat_values, ''repeat_values''),
     (sym_struct_init, ''struct_init''), (sym_struct_elem, ''struct_elem''),
     (sym_struct_elem_decl, ''struct_elem_decl''),
     (sym_struct_elem_decl_attributes, ''struct_elem_decl_attributes''),
     (sym_relative_located_at, ''relative_located_at''),
     (sym_relative_direct_variable, ''relative_direct_variable''),
     (sym_relative_offset, ''relative_offset''), (sym_direct_variable, ''direct_variable''),
     (sym_offset, ''offset''), (sym_ref_type_spec, ''ref_type_spec''), (sym_ref_spec, ''ref_spec''),
     (sym_ref_value, ''ref_value''), (sym_ref_addr, ''ref_addr''),
     (sym_deref_expression, ''deref_expression''), (sym_variable, ''variable''),
     (sym_var_access, ''var_access''), (sym_input_decls, ''input_decls''),
     (sym_input_var, ''input_var''), (sym__input_var_kind, ''_input_var_kind''),
     (sym_variadic_decl, ''variadic_decl''), (sym_edge_decl, ''edge_decl''),
     (sym_var_decl_init, ''var_decl_init''), (sym_var_decl, ''var_decl''),
     (sym_variable_list, ''variable_list''), (sym_array_conformand, ''array_conformand''),
     (sym_conformand_dimension, ''conformand_dimension''), (sym_output_decls, ''output_decls''),
     (sym_output_var, ''output_var''), (sym__output_var_kind, ''_output_var_kind''),
     (sym_in_out_decls, ''in_out_decls''), (sym_in_out_var, ''in_out_var''),
     (sym__in_out_var_kind, ''_in_out_var_kind''), (sym_var_decls, ''var_decls''),
     (sym_retain_var_decls, ''retain_var_decls''), (sym_var_decl_init_list, ''var_decl_init_list''),
     (sym_loc_var_decl, ''loc_var_decl''), (sym_temp_var_decls, ''temp_var_decls''),
     (sym_temp_var, ''temp_var''), (sym__temp_var_kind, ''_temp_var_kind''),
     (sym_external_var_decls, ''external_var_decls''), (sym_external_decl, ''external_decl''),
     (sym__external_var_kind, ''_external_var_kind''), (sym_global_var_decls, ''global_var_decls''),
     (sym_global_var_decl, ''global_var_decl''), (sym__global_var_kind, ''_global_var_kind''),
     (sym_global_var_spec, ''global_var_spec''), (sym_loc_var_spec_init, ''loc_var_spec_init''),
     (sym_located_at, ''located_at''), (sym_loc_partly_var_decl, ''loc_partly_var_decl''),
     (sym_loc_partly_var, ''loc_partly_var''), (sym_var_spec, ''var_spec''),
     (sym_func_decl, ''func_decl''), (sym__func_variables, ''_func_variables''),
     (sym_func_body, ''func_body''), (sym_fb_decl, ''fb_decl''),
     (sym__fb_variables, ''_fb_variables''), (sym_fb_input_decls, ''fb_input_decls''),
     (sym_fb_input_var, ''fb_input_var''), (sym__fb_input_var_kind, ''_fb_input_var_kind''),
     (sym_fb_output_decls, ''fb_output_decls''), (sym_fb_output_var, ''fb_output_var''),
     (sym__fb_output_var_kind, ''_fb_output_var_kind''),
     (sym_no_retain_var_decls, ''no_retain_var_decls''), (sym_fb_body, ''fb_body''),
     (sym_method_decl, ''method_decl''), (sym__method_decl_variables, ''_method_decl_variables''),
     (sym_class_decl, ''class_decl''), (sym__class_variables, ''_class_variables''),
     (sym_interface_decl, ''interface_decl''), (sym_method_prototype, ''method_prototype''),
     (sym__method_prot_variables, ''_method_prot_variables''),
     (sym_interface_name_list, ''interface_name_list''), (sym_access_spec, ''access_spec''),
     (sym_prog_decl, ''prog_decl''), (sym_prog_access_decls, ''prog_access_decls''),
     (sym_prog_access_decl, ''prog_access_decl''), (sym_SFC, ''SFC''),
     (sym_SFC_network, ''SFC_network''), (sym_initial_step, ''initial_step''), (sym_step, ''step''),
     (sym_step_name, ''step_name''), (sym_action_association, ''action_association''),
     (sym_action_name, ''action_name''), (sym_action_qualifier, ''action_qualifier''),
     (sym_action_time, ''action_time''), (sym_transition, ''transition''),
     (sym_transition_name, ''transition_name''), (sym_steps, ''steps''),
     (sym_transition_cond, ''transition_cond''), (sym_action, ''action''),
     (sym_config_decl, ''config_decl''), (sym__config_variables, ''_config_variables''),
     (sym_resource_decl, ''resource_decl''), (sym_single_resource_decl, ''single_resource_decl''),
     (sym_access_decls, ''access_decls''), (sym_access_decl, ''access_decl''),
     (sym_access_path, ''access_path''), (sym_access_direction, ''access_direction''),
     (sym_task_config, ''task_config''), (sym_task_init, ''task_init''),
     (sym_data_source, ''data_source''), (sym_prog_config, ''prog_config''),
     (sym_prog_conf_elems, ''prog_conf_elems''), (sym_prog_conf_elem, ''prog_conf_elem''),
     (sym_fb_task, ''fb_task''), (sym_prog_cnxn, ''prog_cnxn''),
     (sym_prog_data_source, ''prog_data_source''), (sym_data_sink, ''data_sink''),
     (sym_config_init, ''config_init''), (sym_config_inst_init, ''config_inst_init''),
     (sym_namespace_decl, ''namespace_decl''), (sym_namespace_elements, ''namespace_elements'')]"

text \<open>Lines 1079 to 1228.\<close>

definition ts_symbol_names_4 :: "(TSSymbol \<times> string) list" where
  "ts_symbol_names_4 =
    [(sym_namespace_h_name, ''namespace_h_name''), (sym_using_directive, ''using_directive''),
     (sym__expression, ''_expression''), (sym_fold_expression, ''fold_expression''),
     (sym_pack_element, ''pack_element''), (sym_fold_operator, ''fold_operator''),
     (sym__primary_expression, ''_primary_expression''),
     (sym_parenthesized_expression, ''parenthesized_expression''),
     (sym_boolean_operator, ''boolean_operator''), (sym_or_operator, ''or_operator''),
     (sym_xor_operator, ''xor_operator''), (sym_and_operator, ''and_operator''),
     (sym_comparison_operator, ''comparison_operator''), (sym_eq_operator, ''eq_operator''),
     (sym_ord_operator, ''ord_operator''), (sym_eq, ''eq''), (sym_ord, ''ord''),
     (sym_add_operator, ''add_operator''), (sym_add, ''add''),
     (sym_mult_operator, ''mult_operator''), (sym_mult, ''mult''),
     (sym_power_operator, ''power_operator''), (sym_unary_operator, ''unary_operator''),
     (sym_unary, ''unary''), (sym_constant_expr, ''constant_expr''),
     (sym_variable_access, ''variable_access''),
     (sym_multibit_part_access, ''multibit_part_access''), (sym_multibit, ''multibit''),
     (sym_func_call, ''func_call''), (sym_stmt_list, ''stmt_list''), (sym__stmt, ''_stmt''),
     (sym_assign, ''assign''), (sym_assignment, ''assignment''),
     (sym_param_assign, ''param_assign''), (sym_param_assign_input, ''param_assign_input''),
     (sym_param_assign_output, ''param_assign_output''), (sym_if_stmt, ''if_stmt''),
     (sym_else_if_stmt, ''else_if_stmt''), (sym_case_stmt, ''case_stmt''),
     (sym_case_selection, ''case_selection''), (sym_case_body, ''stmt_list''),
     (sym_case_list, ''case_list''), (sym_case_list_elem, ''case_list_elem''),
     (sym_for_stmt, ''for_stmt''), (sym_for_list, ''for_list''), (sym_while_stmt, ''while_stmt''),
     (sym_repeat_stmt, ''repeat_stmt''), (sym_raise_stmt, ''raise_stmt''),
     (sym_try_stmt, ''try_stmt''), (sym_catch_clause, ''catch_clause''),
     (sym_finally_clause, ''finally_clause''),
     (sym_ERR_clause_outside_try, ''ERR_clause_outside_try''),
     (sym_ERR_end_try_spelling, ''ERR_end_try_spelling''),
     (sym_namespace_access, ''namespace_access''), (sym_scoped_identifier, ''scoped_identifier''),
     (sym__path, ''_path''), (sym_begin_path_expression, ''begin_path_expression''),
     (sym_invocation, ''invocation''), (sym_any_invocation, ''any_invocation''),
     (sym_any_invocation_kind, ''any_invocation_kind''), (sym_this_invocation, ''this_invocation''),
     (sym_super_invocation, ''super_invocation''),
     (sym_super_body_invocation, ''super_body_invocation''),
     (sym_path_expression, ''path_expression''), (sym_field_expression, ''field_expression''),
     (sym_index_expression, ''index_expression''), (sym_index_value, ''index_value''),
     (sym_IQM, ''IQM''), (sym_ladder_diagram, ''ladder_diagram''), (sym_fb_diagram, ''fb_diagram''),
     (aux_sym_source_file_repeat1, ''source_file_repeat1''),
     (aux_sym_ERR_doubled_qualifier_repeat1, ''ERR_doubled_qualifier_repeat1''),
     (aux_sym_ERR_doubled_retain_repeat1, ''ERR_doubled_retain_repeat1''),
     (aux_sym_ERR_class_variables_after_method_repeat1, ''ERR_class_variables_after_method_repeat1''),
     (aux_sym_ERR_fb_variables_after_method_repeat1, ''ERR_fb_variables_after_method_repeat1''),
     (aux_sym_extern_param_list_repeat1, ''extern_param_list_repeat1''),
     (aux_sym_allow_pragma_repeat1, ''allow_pragma_repeat1''),
     (aux_sym_data_type_decl_repeat1, ''data_type_decl_repeat1''),
     (aux_sym_enum_spec_repeat1, ''enum_spec_repeat1''),
     (aux_sym_array_type_init_repeat1, ''array_type_init_repeat1''),
     (aux_sym_ranges_repeat1, ''ranges_repeat1''),
     (aux_sym_struct_type_spec_repeat1, ''struct_type_spec_repeat1''),
     (aux_sym_struct_type_init_repeat1, ''struct_type_init_repeat1''),
     (aux_sym_struct_init_repeat1, ''struct_init_repeat1''),
     (aux_sym_relative_offset_repeat1, ''relative_offset_repeat1''),
     (aux_sym_ref_type_spec_repeat1, ''ref_type_spec_repeat1''),
     (aux_sym_deref_expression_repeat1, ''deref_expression_repeat1''),
     (aux_sym_input_decls_repeat1, ''input_decls_repeat1''),
     (aux_sym_variable_list_repeat1, ''variable_list_repeat1''),
     (aux_sym_array_conformand_repeat1, ''array_conformand_repeat1''),
     (aux_sym_output_decls_repeat1, ''output_decls_repeat1''),
     (aux_sym_in_out_decls_repeat1, ''in_out_decls_repeat1''),
     (aux_sym_var_decls_repeat1, ''var_decls_repeat1''),
     (aux_sym_temp_var_decls_repeat1, ''temp_var_decls_repeat1''),
     (aux_sym_external_var_decls_repeat1, ''external_var_decls_repeat1''),
     (aux_sym_global_var_decls_repeat1, ''global_var_decls_repeat1''),
     (aux_sym_global_var_spec_repeat1, ''global_var_spec_repeat1''),
     (aux_sym_loc_partly_var_decl_repeat1, ''loc_partly_var_decl_repeat1''),
     (aux_sym_func_decl_repeat1, ''func_decl_repeat1''),
     (aux_sym_func_decl_repeat2, ''func_decl_repeat2''),
     (aux_sym_func_decl_repeat3, ''func_decl_repeat3''),
     (aux_sym_fb_decl_repeat1, ''fb_decl_repeat1''), (aux_sym_fb_decl_repeat2, ''fb_decl_repeat2''),
     (aux_sym_fb_decl_repeat3, ''fb_decl_repeat3''),
     (aux_sym_fb_input_decls_repeat1, ''fb_input_decls_repeat1''),
     (aux_sym_fb_output_decls_repeat1, ''fb_output_decls_repeat1''),
     (aux_sym_method_decl_repeat1, ''method_decl_repeat1''),
     (aux_sym_interface_decl_repeat1, ''interface_decl_repeat1''),
     (aux_sym_method_prototype_repeat1, ''method_prototype_repeat1''),
     (aux_sym_interface_name_list_repeat1, ''interface_name_list_repeat1''),
     (aux_sym_prog_decl_repeat1, ''prog_decl_repeat1''),
     (aux_sym_prog_access_decls_repeat1, ''prog_access_decls_repeat1''),
     (aux_sym_SFC_repeat1, ''SFC_repeat1''), (aux_sym_SFC_network_repeat1, ''SFC_network_repeat1''),
     (aux_sym_initial_step_repeat1, ''initial_step_repeat1''),
     (aux_sym_action_association_repeat1, ''action_association_repeat1''),
     (aux_sym_steps_repeat1, ''steps_repeat1''),
     (aux_sym_config_decl_repeat1, ''config_decl_repeat1''),
     (aux_sym_resource_decl_repeat1, ''resource_decl_repeat1''),
     (aux_sym_access_decls_repeat1, ''access_decls_repeat1''),
     (aux_sym_prog_conf_elems_repeat1, ''prog_conf_elems_repeat1''),
     (aux_sym_config_init_repeat1, ''config_init_repeat1''),
     (aux_sym_namespace_elements_repeat1, ''namespace_elements_repeat1''),
     (aux_sym_namespace_h_name_repeat1, ''namespace_h_name_repeat1''),
     (aux_sym_using_directive_repeat1, ''using_directive_repeat1''),
     (aux_sym_func_call_repeat1, ''func_call_repeat1''),
     (aux_sym_stmt_list_repeat1, ''stmt_list_repeat1''),
     (aux_sym_if_stmt_repeat1, ''if_stmt_repeat1''),
     (aux_sym_case_stmt_repeat1, ''case_stmt_repeat1''),
     (aux_sym_case_list_repeat1, ''case_list_repeat1''),
     (aux_sym_try_stmt_repeat1, ''try_stmt_repeat1''),
     (aux_sym_index_value_repeat1, ''index_value_repeat1''),
     (aux_sym_ladder_diagram_repeat1, ''ladder_diagram_repeat1''),
     (aux_sym_fb_diagram_repeat1, ''fb_diagram_repeat1''), (alias_sym_deref_sign, ''deref_sign''),
     (alias_sym_field, ''field''), (alias_sym_fold_and, ''fold_and''),
     (alias_sym_fold_div, ''fold_div''), (alias_sym_fold_eq, ''fold_eq''),
     (alias_sym_fold_ge, ''fold_ge''), (alias_sym_fold_gt, ''fold_gt''),
     (alias_sym_fold_le, ''fold_le''), (alias_sym_fold_lt, ''fold_lt''),
     (alias_sym_fold_minus, ''fold_minus''), (alias_sym_fold_mod, ''fold_mod''),
     (alias_sym_fold_mul, ''fold_mul''), (alias_sym_fold_ne, ''fold_ne''),
     (alias_sym_fold_plus, ''fold_plus''), (alias_sym_fold_power, ''fold_power''),
     (alias_sym_fold_xor, ''fold_xor'')]"

text \<open>Lines 1229 to 1232.\<close>

definition ts_symbol_names_5 :: "(TSSymbol \<times> string) list" where
  "ts_symbol_names_5 =
    [(alias_sym_internal, ''internal''), (alias_sym_partly, ''partly''),
     (alias_sym_ref_to, ''ref_to''), (alias_sym_target, ''target'')]"

lemmas ts_symbol_names_parts =
  ts_symbol_names_1_def ts_symbol_names_2_def ts_symbol_names_3_def ts_symbol_names_4_def
  ts_symbol_names_5_def

definition symbol_name_entries :: "(TSSymbol \<times> string) list" where
  "symbol_name_entries =
     ts_symbol_names_1 @ ts_symbol_names_2 @ ts_symbol_names_3 @ ts_symbol_names_4 @
     ts_symbol_names_5"

definition ts_symbol_names :: "string option list" where
  "ts_symbol_names = designated_unsized None (map (map_prod id Some) symbol_name_entries)"

section \<open>The symbol shown for a symbol\<close>

text \<open>Lines 1236 to 1385.\<close>

definition ts_symbol_map_1 :: "(TSSymbol \<times> TSSymbol) list" where
  "ts_symbol_map_1 =
    [(ts_builtin_sym_end, ts_builtin_sym_end), (sym_identifier, sym_identifier),
     (aux_sym_ERR_implements_before_extends_token1, aux_sym_ERR_implements_before_extends_token1),
     (aux_sym_ERR_extends_multiple_times_token1, aux_sym_ERR_extends_multiple_times_token1),
     (aux_sym_ERR_doubled_qualifier_token1, aux_sym_ERR_doubled_qualifier_token1),
     (aux_sym_ERR_doubled_qualifier_token2, aux_sym_ERR_doubled_qualifier_token2),
     (aux_sym_ERR_doubled_retain_token1, aux_sym_ERR_doubled_retain_token1),
     (aux_sym_ERR_invalid_edge_qualifier_token1, aux_sym_ERR_invalid_edge_qualifier_token1),
     (anon_sym_COLON_EQ, anon_sym_COLON_EQ), (anon_sym_EQ, anon_sym_EQ),
     (anon_sym_COLON, anon_sym_COLON), (anon_sym_EQ_GT, anon_sym_EQ_GT),
     (aux_sym_ERR_unexpected_this_in_path_token1, aux_sym_ERR_unexpected_this_in_path_token1),
     (aux_sym_ERR_unexpected_super_in_path_token1, aux_sym_ERR_unexpected_super_in_path_token1),
     (anon_sym_COMMA, anon_sym_COMMA),
     (aux_sym_ERR_single_after_interval_token1, aux_sym_ERR_single_after_interval_token1),
     (aux_sym_ERR_interval_after_priority_token1, aux_sym_ERR_interval_after_priority_token1),
     (sym_line_comment, sym_line_comment), (anon_sym_LBRACE, anon_sym_LBRACE),
     (anon_sym_extern, anon_sym_extern), (anon_sym_RBRACE, anon_sym_RBRACE),
     (anon_sym_LPAREN, anon_sym_LPAREN), (anon_sym_params, anon_sym_params),
     (anon_sym_RPAREN, anon_sym_RPAREN), (anon_sym_result, anon_sym_result),
     (anon_sym_wasm, anon_sym_wasm), (sym_pragma_string, sym_pragma_string),
     (anon_sym_warn, anon_sym_warn), (anon_sym_info, anon_sym_info),
     (anon_sym_allow, anon_sym_allow), (aux_sym_test_pragma_token1, aux_sym_test_pragma_token1),
     (aux_sym_once_pragma_token1, aux_sym_once_pragma_token1),
     (aux_sym_must_call_pragma_token1, aux_sym_must_call_pragma_token1),
     (aux_sym_export_pragma_token1, aux_sym_export_pragma_token1), (anon_sym_POUND, anon_sym_POUND),
     (sym_unsigned_int, sym_unsigned_int), (sym__explicit_signed_int, sym__explicit_signed_int),
     (sym_binary_int, sym_binary_int), (sym_octal_int, sym_octal_int), (sym_hex_int, sym_hex_int),
     (sym__explicit_signed_real, sym__explicit_signed_real), (sym_real_value, sym_real_value),
     (aux_sym_bool_literal_with_string_token1, aux_sym_bool_literal_with_string_token1),
     (aux_sym_bool_literal_with_string_token2, aux_sym_bool_literal_with_string_token2),
     (aux_sym_bool_literal_with_string_token3, aux_sym_bool_literal_with_string_token3),
     (anon_sym_0, anon_sym_0), (anon_sym_1, anon_sym_1), (sym_s_byte_char_str, sym_s_byte_char_str),
     (sym_d_byte_char_str, sym_d_byte_char_str), (aux_sym_time_token1, sym_time_type_name),
     (anon_sym_PLUS, anon_sym_PLUS), (anon_sym_DASH, anon_sym_DASH),
     (aux_sym_ltime_token1, sym_l_time_type_name), (sym_time_value, sym_time_value),
     (aux_sym_tod_token1, sym_tod_type_name), (aux_sym_ltod_token1, sym_ltod_type_name),
     (sym_daytime, sym_daytime), (aux_sym_short_date_token1, sym_date_type_name),
     (aux_sym_long_date_token1, sym_date_type_name),
     (aux_sym_date_literal_token1, aux_sym_date_literal_token1),
     (aux_sym_short_date_and_time_token1, aux_sym_short_date_and_time_token1),
     (aux_sym_long_date_and_time_token1, aux_sym_long_date_and_time_token1),
     (aux_sym_sign_int_type_name_token1, aux_sym_sign_int_type_name_token1),
     (aux_sym_sign_int_type_name_token2, aux_sym_sign_int_type_name_token2),
     (aux_sym_sign_int_type_name_token3, aux_sym_sign_int_type_name_token3),
     (aux_sym_sign_int_type_name_token4, aux_sym_sign_int_type_name_token4),
     (aux_sym_unsign_int_type_name_token1, aux_sym_unsign_int_type_name_token1),
     (aux_sym_unsign_int_type_name_token2, aux_sym_unsign_int_type_name_token2),
     (aux_sym_unsign_int_type_name_token3, aux_sym_unsign_int_type_name_token3),
     (aux_sym_unsign_int_type_name_token4, aux_sym_unsign_int_type_name_token4),
     (aux_sym_real_type_name_token1, aux_sym_real_type_name_token1),
     (aux_sym_real_type_name_token2, aux_sym_real_type_name_token2),
     (aux_sym_string_name_token1, aux_sym_string_name_token1), (anon_sym_LBRACK, anon_sym_LBRACK),
     (anon_sym_RBRACK, anon_sym_RBRACK), (aux_sym_char_name_token1, aux_sym_char_name_token1),
     (sym_time_type_name, sym_time_type_name), (sym_l_time_type_name, sym_l_time_type_name),
     (sym_date_type_name, sym_date_type_name), (sym_l_date_type_name, sym_l_date_type_name),
     (sym_tod_type_name, sym_tod_type_name), (sym_ltod_type_name, sym_ltod_type_name),
     (sym_dt_type_name, sym_dt_type_name), (sym_l_dt_type_name, sym_l_dt_type_name),
     (aux_sym_bit_str_type_name_token1, aux_sym_bit_str_type_name_token1),
     (aux_sym_multibits_type_name_token1, aux_sym_multibits_type_name_token1),
     (aux_sym_multibits_type_name_token2, aux_sym_multibits_type_name_token2),
     (aux_sym_multibits_type_name_token3, aux_sym_multibits_type_name_token3),
     (aux_sym_multibits_type_name_token4, aux_sym_multibits_type_name_token4),
     (aux_sym_data_type_decl_token1, aux_sym_data_type_decl_token1), (anon_sym_SEMI, anon_sym_SEMI),
     (aux_sym_data_type_decl_token2, aux_sym_data_type_decl_token2),
     (anon_sym_DOT_DOT, anon_sym_DOT_DOT),
     (aux_sym_array_type_spec_token1, aux_sym_array_type_spec_token1),
     (aux_sym_array_type_spec_token2, aux_sym_array_type_spec_token2),
     (aux_sym_struct_type_spec_token1, aux_sym_struct_type_spec_token1),
     (aux_sym_struct_type_spec_token2, aux_sym_struct_type_spec_token2),
     (aux_sym_struct_type_spec_token3, aux_sym_struct_type_spec_token3),
     (aux_sym_relative_located_at_token1, aux_sym_relative_located_at_token1),
     (anon_sym_PERCENT, anon_sym_PERCENT), (anon_sym_STAR, anon_sym_STAR),
     (anon_sym_DOT, anon_sym_DOT), (aux_sym_ref_type_spec_token1, aux_sym_ref_type_spec_token1),
     (aux_sym_ref_value_token1, aux_sym_ref_value_token1),
     (aux_sym_ref_addr_token1, aux_sym_ref_addr_token1), (anon_sym_CARET, anon_sym_CARET),
     (aux_sym_input_decls_token1, aux_sym_input_decls_token1),
     (aux_sym_input_decls_token2, aux_sym_input_decls_token2),
     (anon_sym_DOT_DOT_DOT, anon_sym_DOT_DOT_DOT),
     (aux_sym_edge_decl_token1, aux_sym_edge_decl_token1),
     (aux_sym_edge_decl_token2, aux_sym_edge_decl_token2),
     (aux_sym_output_decls_token1, aux_sym_output_decls_token1),
     (aux_sym_in_out_decls_token1, aux_sym_in_out_decls_token1),
     (aux_sym_var_decls_token1, aux_sym_var_decls_token1),
     (aux_sym_temp_var_decls_token1, aux_sym_temp_var_decls_token1),
     (aux_sym_external_var_decls_token1, aux_sym_external_var_decls_token1),
     (aux_sym_global_var_decls_token1, aux_sym_global_var_decls_token1),
     (aux_sym_func_decl_token1, aux_sym_func_decl_token1),
     (aux_sym_func_decl_token2, aux_sym_func_decl_token2),
     (aux_sym_fb_decl_token1, aux_sym_fb_decl_token1),
     (aux_sym_fb_decl_token2, aux_sym_fb_decl_token2),
     (aux_sym_fb_decl_token3, aux_sym_fb_decl_token3),
     (aux_sym_fb_decl_token4, aux_sym_fb_decl_token4),
     (aux_sym_method_decl_token1, aux_sym_method_decl_token1),
     (aux_sym_method_decl_token2, aux_sym_method_decl_token2),
     (aux_sym_method_decl_token3, aux_sym_method_decl_token3),
     (aux_sym_class_decl_token1, aux_sym_class_decl_token1),
     (aux_sym_class_decl_token2, aux_sym_class_decl_token2),
     (aux_sym_interface_decl_token1, aux_sym_interface_decl_token1),
     (aux_sym_interface_decl_token2, aux_sym_interface_decl_token2),
     (aux_sym_access_spec_token1, aux_sym_access_spec_token1),
     (aux_sym_access_spec_token2, aux_sym_access_spec_token2),
     (aux_sym_access_spec_token3, aux_sym_access_spec_token3),
     (aux_sym_access_spec_token4, aux_sym_access_spec_token4),
     (aux_sym_prog_decl_token1, aux_sym_prog_decl_token1),
     (aux_sym_prog_decl_token2, aux_sym_prog_decl_token2),
     (aux_sym_prog_access_decls_token1, aux_sym_prog_access_decls_token1),
     (aux_sym_initial_step_token1, aux_sym_initial_step_token1),
     (aux_sym_initial_step_token2, aux_sym_initial_step_token2),
     (aux_sym_step_token1, aux_sym_step_token1), (anon_sym_N, anon_sym_N), (anon_sym_R, anon_sym_R),
     (anon_sym_S, anon_sym_S), (anon_sym_P, anon_sym_P), (anon_sym_L, anon_sym_L),
     (anon_sym_D, anon_sym_D), (aux_sym_action_qualifier_token1, aux_sym_action_qualifier_token1),
     (aux_sym_action_qualifier_token2, aux_sym_action_qualifier_token2),
     (aux_sym_action_qualifier_token3, aux_sym_action_qualifier_token3),
     (aux_sym_transition_token1, aux_sym_transition_token1)]"

text \<open>Lines 1386 to 1535.\<close>

definition ts_symbol_map_2 :: "(TSSymbol \<times> TSSymbol) list" where
  "ts_symbol_map_2 =
    [(aux_sym_transition_token2, aux_sym_transition_token2),
     (aux_sym_transition_token3, aux_sym_transition_token3),
     (aux_sym_transition_token4, aux_sym_transition_token4),
     (aux_sym_transition_token5, aux_sym_transition_token5),
     (aux_sym_action_token1, aux_sym_action_token1), (aux_sym_action_token2, aux_sym_action_token2),
     (aux_sym_config_decl_token1, aux_sym_config_decl_token1),
     (aux_sym_config_decl_token2, aux_sym_config_decl_token2),
     (aux_sym_resource_decl_token1, aux_sym_resource_decl_token1),
     (aux_sym_resource_decl_token2, aux_sym_resource_decl_token2),
     (aux_sym_resource_decl_token3, aux_sym_resource_decl_token3),
     (aux_sym_access_direction_token1, aux_sym_access_direction_token1),
     (aux_sym_access_direction_token2, aux_sym_access_direction_token2),
     (aux_sym_task_config_token1, aux_sym_task_config_token1),
     (aux_sym_prog_config_token1, aux_sym_prog_config_token1),
     (aux_sym_config_init_token1, aux_sym_config_init_token1),
     (aux_sym_namespace_decl_token1, aux_sym_namespace_decl_token1),
     (aux_sym_namespace_decl_token2, aux_sym_namespace_decl_token2),
     (aux_sym_using_directive_token1, aux_sym_using_directive_token1),
     (anon_sym_SLASH, anon_sym_SLASH), (anon_sym_STAR_STAR, anon_sym_STAR_STAR),
     (anon_sym_AMP, anon_sym_AMP), (anon_sym_PIPE, anon_sym_PIPE), (anon_sym_LT_GT, anon_sym_LT_GT),
     (anon_sym_LT, anon_sym_LT), (anon_sym_GT, anon_sym_GT), (anon_sym_LT_EQ, anon_sym_LT_EQ),
     (anon_sym_GT_EQ, anon_sym_GT_EQ), (aux_sym_fold_operator_token1, aux_sym_fold_operator_token1),
     (aux_sym_fold_operator_token2, aux_sym_fold_operator_token2),
     (aux_sym_or_operator_token1, aux_sym_or_operator_token1),
     (aux_sym_xor_operator_token1, aux_sym_xor_operator_token1),
     (aux_sym_and_operator_token1, aux_sym_and_operator_token1),
     (aux_sym_mult_token1, aux_sym_mult_token1), (aux_sym_unary_token1, aux_sym_unary_token1),
     (aux_sym__stmt_token1, aux_sym__stmt_token1), (aux_sym__stmt_token2, aux_sym__stmt_token2),
     (aux_sym__stmt_token3, aux_sym__stmt_token3), (aux_sym_if_stmt_token1, aux_sym_if_stmt_token1),
     (aux_sym_if_stmt_token2, aux_sym_if_stmt_token2),
     (aux_sym_if_stmt_token3, aux_sym_if_stmt_token3),
     (aux_sym_if_stmt_token4, aux_sym_if_stmt_token4),
     (aux_sym_else_if_stmt_token1, aux_sym_else_if_stmt_token1),
     (aux_sym_case_stmt_token1, aux_sym_case_stmt_token1),
     (aux_sym_case_stmt_token2, aux_sym_case_stmt_token2),
     (aux_sym_for_stmt_token1, aux_sym_for_stmt_token1),
     (aux_sym_for_stmt_token2, aux_sym_for_stmt_token2),
     (aux_sym_for_stmt_token3, aux_sym_for_stmt_token3),
     (aux_sym_for_list_token1, aux_sym_for_list_token1),
     (aux_sym_while_stmt_token1, aux_sym_while_stmt_token1),
     (aux_sym_while_stmt_token2, aux_sym_while_stmt_token2),
     (aux_sym_repeat_stmt_token1, aux_sym_repeat_stmt_token1),
     (aux_sym_repeat_stmt_token2, aux_sym_repeat_stmt_token2),
     (aux_sym_repeat_stmt_token3, aux_sym_repeat_stmt_token3),
     (aux_sym_raise_stmt_token1, aux_sym_raise_stmt_token1),
     (aux_sym_try_stmt_token1, aux_sym_try_stmt_token1),
     (aux_sym_try_stmt_token2, aux_sym_try_stmt_token2),
     (aux_sym_catch_clause_token1, aux_sym_catch_clause_token1),
     (aux_sym_finally_clause_token1, aux_sym_finally_clause_token1),
     (aux_sym_ERR_end_try_spelling_token1, aux_sym_ERR_end_try_spelling_token1),
     (anon_sym_LPAREN_RPAREN, anon_sym_LPAREN_RPAREN), (anon_sym_I, anon_sym_I),
     (anon_sym_Q, anon_sym_Q), (anon_sym_M, anon_sym_M), (sym_ld_rung, sym_ld_rung),
     (sym_fbd_network, sym_fbd_network), (sym_adress_identifier, sym_adress_identifier),
     (sym_c_style_comment, sym_c_style_comment),
     (sym_pascal_style_comment, sym_pascal_style_comment), (sym_pragma, sym_pragma),
     (sym__minus_before_base, anon_sym_DASH), (sym__plus_before_base, anon_sym_PLUS),
     (sym_source_file, sym_source_file),
     (sym_ERR_implements_before_extends, sym_ERR_implements_before_extends),
     (sym_ERR_implements_multiple_times, sym_ERR_implements_multiple_times),
     (sym_ERR_extends_multiple_times, sym_ERR_extends_multiple_times),
     (sym_ERR_doubled_qualifier, sym_ERR_doubled_qualifier),
     (sym_ERR_doubled_retain, sym_ERR_doubled_retain),
     (sym_ERR_doubled_non_retain, sym_ERR_doubled_non_retain),
     (sym_ERR_doubled_constant, sym_ERR_doubled_constant),
     (sym_ERR_doubled_global_qualifier, sym_ERR_doubled_global_qualifier),
     (sym_ERR_variable_with_no_spec, sym_ERR_variable_with_no_spec),
     (sym_ERR_config_entry_with_no_spec, sym_ERR_config_entry_with_no_spec),
     (sym_ERR_invalid_edge_qualifier, sym_ERR_invalid_edge_qualifier),
     (sym_ERR_empty_right_hand_assignment, sym_ERR_empty_right_hand_assignment),
     (sym_ERR_assign_func_call, sym_ERR_assign_func_call),
     (sym_ERR_missing_dot_in_assignment, sym_ERR_missing_dot_in_assignment),
     (sym_ERR_missing_equal_in_assignment, sym_ERR_missing_equal_in_assignment),
     (sym_ERR_missing_dot_in_for_control, sym_ERR_missing_dot_in_for_control),
     (sym_ERR_missing_equal_in_for_control, sym_ERR_missing_equal_in_for_control),
     (sym_ERR_assign_in_condition, sym_ERR_assign_in_condition),
     (sym_ERR_output_assign_in_assignment, sym_ERR_output_assign_in_assignment),
     (sym_ERR_output_assign_in_for_control, sym_ERR_output_assign_in_for_control),
     (sym_ERR_unexpected_this_in_path, sym_ERR_unexpected_this_in_path),
     (sym_ERR_unexpected_super_in_path, sym_ERR_unexpected_super_in_path),
     (sym_ERR_func_call_in_init, sym_ERR_func_call_in_init),
     (sym_ERR_class_variables_after_method, sym_ERR_class_variables_after_method),
     (sym_ERR_fb_variables_after_method, sym_ERR_fb_variables_after_method),
     (sym_ERR_program_not_allowed_in_namespace, sym_ERR_program_not_allowed_in_namespace),
     (sym_ERR_config_not_allowed_in_namespace, sym_ERR_config_not_allowed_in_namespace),
     (sym_ERR_single_after_interval, sym_ERR_single_after_interval),
     (sym_ERR_interval_after_priority, sym_ERR_interval_after_priority),
     (sym_ERR_single_after_priorty, sym_ERR_single_after_priorty),
     (sym_ERR_var_in_out_not_allowed, sym_ERR_var_in_out_not_allowed),
     (sym_ERR_var_temp_not_allowed, sym_ERR_var_temp_not_allowed),
     (sym_ERR_variadic_fb_input, sym_ERR_variadic_fb_input),
     (sym_ERR_var_access_not_allowed, sym_ERR_var_access_not_allowed),
     (sym_ERR_var_config_not_allowed, sym_ERR_var_config_not_allowed),
     (sym_ERR_var_external_not_allowed, sym_ERR_var_external_not_allowed),
     (sym_ERR_var_global_not_allowed, sym_ERR_var_global_not_allowed),
     (sym_ERR_task_or_program_outside_resource, sym_ERR_task_or_program_outside_resource),
     (sym_ERR_var_not_allowed, sym_ERR_var_not_allowed),
     (sym_ERR_access_spec_in_method_prototype, sym_ERR_access_spec_in_method_prototype),
     (sym_ERR_method_decl_in_body, sym_ERR_method_decl_in_body),
     (sym_extern_pragma, sym_extern_pragma), (sym_extern_param_list, sym_extern_param_list),
     (sym_extern_result, sym_extern_result), (sym_wasm_pragma, sym_wasm_pragma),
     (sym_warn_pragma, sym_warn_pragma), (sym_warn_pragma_level, sym_warn_pragma_level),
     (sym_allow_pragma, sym_allow_pragma), (sym_test_pragma, sym_test_pragma),
     (sym_once_pragma, sym_once_pragma), (sym_must_call_pragma, sym_must_call_pragma),
     (sym_export_pragma, sym_export_pragma), (sym_pou_pragma, sym_pou_pragma),
     (sym_constant, sym_constant), (sym_numeric_literal, sym_numeric_literal),
     (sym_int_literal, sym_int_literal), (sym_int_kind, sym_int_kind),
     (sym_signed_int, sym_signed_int), (sym_real_literal, sym_real_literal),
     (sym_signed_real_value, sym_signed_real_value), (sym_bool_literal, sym_bool_literal),
     (sym_bool_literal_with_string, sym_bool_literal_with_string),
     (sym_bool_literal_with_numeric, sym_bool_literal_with_numeric),
     (sym_char_literal, sym_char_literal), (sym_char_str, sym_char_str),
     (sym_time_literal, sym_time_literal), (sym_duration, sym_duration), (sym_time, sym_time),
     (sym_ltime, sym_ltime), (sym_time_of_day, sym_time_of_day), (sym_tod, sym_tod),
     (sym_ltod, sym_ltod), (sym_date, sym_date), (sym_short_date, sym_short_date),
     (sym_long_date, sym_long_date), (sym_date_literal, sym_date_literal),
     (sym_date_and_time, sym_date_and_time)]"

text \<open>Lines 1536 to 1685.\<close>

definition ts_symbol_map_3 :: "(TSSymbol \<times> TSSymbol) list" where
  "ts_symbol_map_3 =
    [(sym_short_date_and_time, sym_short_date_and_time),
     (sym_long_date_and_time, sym_long_date_and_time), (sym_date_and_daytime, sym_date_and_daytime),
     (sym_data_type_access, sym_data_type_access), (sym__elem_type_name, sym__elem_type_name),
     (sym_numeric_type_name, sym_numeric_type_name), (sym_int_type_name, sym_int_type_name),
     (sym_sign_int_type_name, sym_sign_int_type_name),
     (sym_unsign_int_type_name, sym_unsign_int_type_name), (sym_real_type_name, sym_real_type_name),
     (sym_string_type_name, sym_string_type_name), (sym_string_name, sym_string_name),
     (sym_char_name, sym_char_name), (sym_bit_str_type_name, sym_bit_str_type_name),
     (sym_multibits_type_name, sym_multibits_type_name), (sym_data_type_decl, sym_data_type_decl),
     (sym_type_decl, sym_type_decl), (sym_simple_type_spec, sym_simple_type_spec),
     (sym_simple_type_init, sym_simple_type_init), (sym_subrange_type_spec, sym_subrange_type_spec),
     (sym_subrange, sym_subrange), (sym_enum_type_spec, sym_enum_type_spec),
     (sym_enum_spec, sym_enum_spec), (sym_enum_value_spec, sym_enum_value_spec),
     (sym_enum_value, sym_enum_value), (sym_array_type_spec, sym_array_type_spec),
     (sym_array_type_init, sym_array_type_init), (sym_ranges, sym_ranges),
     (sym_struct_type_spec, sym_struct_type_spec), (sym_struct_type_init, sym_struct_type_init),
     (sym_init_elem, sym_init_elem), (sym__array_item, sym__array_item),
     (sym_array_init, sym_array_init), (sym_element_at, sym_element_at),
     (sym__element_value, sym__element_value), (sym_array_index_elem, sym_array_index_elem),
     (sym_array_values, sym_array_values), (sym_repeat_values, sym_repeat_values),
     (sym_struct_init, sym_struct_init), (sym_struct_elem, sym_struct_elem),
     (sym_struct_elem_decl, sym_struct_elem_decl),
     (sym_struct_elem_decl_attributes, sym_struct_elem_decl_attributes),
     (sym_relative_located_at, sym_relative_located_at),
     (sym_relative_direct_variable, sym_relative_direct_variable),
     (sym_relative_offset, sym_relative_offset), (sym_direct_variable, sym_direct_variable),
     (sym_offset, sym_offset), (sym_ref_type_spec, sym_ref_type_spec), (sym_ref_spec, sym_ref_spec),
     (sym_ref_value, sym_ref_value), (sym_ref_addr, sym_ref_addr),
     (sym_deref_expression, sym_deref_expression), (sym_variable, sym_variable),
     (sym_var_access, sym_var_access), (sym_input_decls, sym_input_decls),
     (sym_input_var, sym_input_var), (sym__input_var_kind, sym__input_var_kind),
     (sym_variadic_decl, sym_variadic_decl), (sym_edge_decl, sym_edge_decl),
     (sym_var_decl_init, sym_var_decl_init), (sym_var_decl, sym_var_decl),
     (sym_variable_list, sym_variable_list), (sym_array_conformand, sym_array_conformand),
     (sym_conformand_dimension, sym_conformand_dimension), (sym_output_decls, sym_output_decls),
     (sym_output_var, sym_output_var), (sym__output_var_kind, sym__output_var_kind),
     (sym_in_out_decls, sym_in_out_decls), (sym_in_out_var, sym_in_out_var),
     (sym__in_out_var_kind, sym__in_out_var_kind), (sym_var_decls, sym_var_decls),
     (sym_retain_var_decls, sym_retain_var_decls), (sym_var_decl_init_list, sym_var_decl_init_list),
     (sym_loc_var_decl, sym_loc_var_decl), (sym_temp_var_decls, sym_temp_var_decls),
     (sym_temp_var, sym_temp_var), (sym__temp_var_kind, sym__temp_var_kind),
     (sym_external_var_decls, sym_external_var_decls), (sym_external_decl, sym_external_decl),
     (sym__external_var_kind, sym__external_var_kind), (sym_global_var_decls, sym_global_var_decls),
     (sym_global_var_decl, sym_global_var_decl), (sym__global_var_kind, sym__global_var_kind),
     (sym_global_var_spec, sym_global_var_spec), (sym_loc_var_spec_init, sym_loc_var_spec_init),
     (sym_located_at, sym_located_at), (sym_loc_partly_var_decl, sym_loc_partly_var_decl),
     (sym_loc_partly_var, sym_loc_partly_var), (sym_var_spec, sym_var_spec),
     (sym_func_decl, sym_func_decl), (sym__func_variables, sym__func_variables),
     (sym_func_body, sym_func_body), (sym_fb_decl, sym_fb_decl),
     (sym__fb_variables, sym__fb_variables), (sym_fb_input_decls, sym_fb_input_decls),
     (sym_fb_input_var, sym_fb_input_var), (sym__fb_input_var_kind, sym__fb_input_var_kind),
     (sym_fb_output_decls, sym_fb_output_decls), (sym_fb_output_var, sym_fb_output_var),
     (sym__fb_output_var_kind, sym__fb_output_var_kind),
     (sym_no_retain_var_decls, sym_no_retain_var_decls), (sym_fb_body, sym_fb_body),
     (sym_method_decl, sym_method_decl), (sym__method_decl_variables, sym__method_decl_variables),
     (sym_class_decl, sym_class_decl), (sym__class_variables, sym__class_variables),
     (sym_interface_decl, sym_interface_decl), (sym_method_prototype, sym_method_prototype),
     (sym__method_prot_variables, sym__method_prot_variables),
     (sym_interface_name_list, sym_interface_name_list), (sym_access_spec, sym_access_spec),
     (sym_prog_decl, sym_prog_decl), (sym_prog_access_decls, sym_prog_access_decls),
     (sym_prog_access_decl, sym_prog_access_decl), (sym_SFC, sym_SFC),
     (sym_SFC_network, sym_SFC_network), (sym_initial_step, sym_initial_step), (sym_step, sym_step),
     (sym_step_name, sym_step_name), (sym_action_association, sym_action_association),
     (sym_action_name, sym_action_name), (sym_action_qualifier, sym_action_qualifier),
     (sym_action_time, sym_action_time), (sym_transition, sym_transition),
     (sym_transition_name, sym_transition_name), (sym_steps, sym_steps),
     (sym_transition_cond, sym_transition_cond), (sym_action, sym_action),
     (sym_config_decl, sym_config_decl), (sym__config_variables, sym__config_variables),
     (sym_resource_decl, sym_resource_decl), (sym_single_resource_decl, sym_single_resource_decl),
     (sym_access_decls, sym_access_decls), (sym_access_decl, sym_access_decl),
     (sym_access_path, sym_access_path), (sym_access_direction, sym_access_direction),
     (sym_task_config, sym_task_config), (sym_task_init, sym_task_init),
     (sym_data_source, sym_data_source), (sym_prog_config, sym_prog_config),
     (sym_prog_conf_elems, sym_prog_conf_elems), (sym_prog_conf_elem, sym_prog_conf_elem),
     (sym_fb_task, sym_fb_task), (sym_prog_cnxn, sym_prog_cnxn),
     (sym_prog_data_source, sym_prog_data_source), (sym_data_sink, sym_data_sink),
     (sym_config_init, sym_config_init), (sym_config_inst_init, sym_config_inst_init),
     (sym_namespace_decl, sym_namespace_decl), (sym_namespace_elements, sym_namespace_elements)]"

text \<open>Lines 1686 to 1835.\<close>

definition ts_symbol_map_4 :: "(TSSymbol \<times> TSSymbol) list" where
  "ts_symbol_map_4 =
    [(sym_namespace_h_name, sym_namespace_h_name), (sym_using_directive, sym_using_directive),
     (sym__expression, sym__expression), (sym_fold_expression, sym_fold_expression),
     (sym_pack_element, sym_pack_element), (sym_fold_operator, sym_fold_operator),
     (sym__primary_expression, sym__primary_expression),
     (sym_parenthesized_expression, sym_parenthesized_expression),
     (sym_boolean_operator, sym_boolean_operator), (sym_or_operator, sym_or_operator),
     (sym_xor_operator, sym_xor_operator), (sym_and_operator, sym_and_operator),
     (sym_comparison_operator, sym_comparison_operator), (sym_eq_operator, sym_eq_operator),
     (sym_ord_operator, sym_ord_operator), (sym_eq, sym_eq), (sym_ord, sym_ord),
     (sym_add_operator, sym_add_operator), (sym_add, sym_add),
     (sym_mult_operator, sym_mult_operator), (sym_mult, sym_mult),
     (sym_power_operator, sym_power_operator), (sym_unary_operator, sym_unary_operator),
     (sym_unary, sym_unary), (sym_constant_expr, sym_constant_expr),
     (sym_variable_access, sym_variable_access),
     (sym_multibit_part_access, sym_multibit_part_access), (sym_multibit, sym_multibit),
     (sym_func_call, sym_func_call), (sym_stmt_list, sym_stmt_list), (sym__stmt, sym__stmt),
     (sym_assign, sym_assign), (sym_assignment, sym_assignment),
     (sym_param_assign, sym_param_assign), (sym_param_assign_input, sym_param_assign_input),
     (sym_param_assign_output, sym_param_assign_output), (sym_if_stmt, sym_if_stmt),
     (sym_else_if_stmt, sym_else_if_stmt), (sym_case_stmt, sym_case_stmt),
     (sym_case_selection, sym_case_selection), (sym_case_body, sym_stmt_list),
     (sym_case_list, sym_case_list), (sym_case_list_elem, sym_case_list_elem),
     (sym_for_stmt, sym_for_stmt), (sym_for_list, sym_for_list), (sym_while_stmt, sym_while_stmt),
     (sym_repeat_stmt, sym_repeat_stmt), (sym_raise_stmt, sym_raise_stmt),
     (sym_try_stmt, sym_try_stmt), (sym_catch_clause, sym_catch_clause),
     (sym_finally_clause, sym_finally_clause),
     (sym_ERR_clause_outside_try, sym_ERR_clause_outside_try),
     (sym_ERR_end_try_spelling, sym_ERR_end_try_spelling),
     (sym_namespace_access, sym_namespace_access), (sym_scoped_identifier, sym_scoped_identifier),
     (sym__path, sym__path), (sym_begin_path_expression, sym_begin_path_expression),
     (sym_invocation, sym_invocation), (sym_any_invocation, sym_any_invocation),
     (sym_any_invocation_kind, sym_any_invocation_kind), (sym_this_invocation, sym_this_invocation),
     (sym_super_invocation, sym_super_invocation),
     (sym_super_body_invocation, sym_super_body_invocation),
     (sym_path_expression, sym_path_expression), (sym_field_expression, sym_field_expression),
     (sym_index_expression, sym_index_expression), (sym_index_value, sym_index_value),
     (sym_IQM, sym_IQM), (sym_ladder_diagram, sym_ladder_diagram), (sym_fb_diagram, sym_fb_diagram),
     (aux_sym_source_file_repeat1, aux_sym_source_file_repeat1),
     (aux_sym_ERR_doubled_qualifier_repeat1, aux_sym_ERR_doubled_qualifier_repeat1),
     (aux_sym_ERR_doubled_retain_repeat1, aux_sym_ERR_doubled_retain_repeat1),
     (aux_sym_ERR_class_variables_after_method_repeat1, aux_sym_ERR_class_variables_after_method_repeat1),
     (aux_sym_ERR_fb_variables_after_method_repeat1, aux_sym_ERR_fb_variables_after_method_repeat1),
     (aux_sym_extern_param_list_repeat1, aux_sym_extern_param_list_repeat1),
     (aux_sym_allow_pragma_repeat1, aux_sym_allow_pragma_repeat1),
     (aux_sym_data_type_decl_repeat1, aux_sym_data_type_decl_repeat1),
     (aux_sym_enum_spec_repeat1, aux_sym_enum_spec_repeat1),
     (aux_sym_array_type_init_repeat1, aux_sym_array_type_init_repeat1),
     (aux_sym_ranges_repeat1, aux_sym_ranges_repeat1),
     (aux_sym_struct_type_spec_repeat1, aux_sym_struct_type_spec_repeat1),
     (aux_sym_struct_type_init_repeat1, aux_sym_struct_type_init_repeat1),
     (aux_sym_struct_init_repeat1, aux_sym_struct_init_repeat1),
     (aux_sym_relative_offset_repeat1, aux_sym_relative_offset_repeat1),
     (aux_sym_ref_type_spec_repeat1, aux_sym_ref_type_spec_repeat1),
     (aux_sym_deref_expression_repeat1, aux_sym_deref_expression_repeat1),
     (aux_sym_input_decls_repeat1, aux_sym_input_decls_repeat1),
     (aux_sym_variable_list_repeat1, aux_sym_variable_list_repeat1),
     (aux_sym_array_conformand_repeat1, aux_sym_array_conformand_repeat1),
     (aux_sym_output_decls_repeat1, aux_sym_output_decls_repeat1),
     (aux_sym_in_out_decls_repeat1, aux_sym_in_out_decls_repeat1),
     (aux_sym_var_decls_repeat1, aux_sym_var_decls_repeat1),
     (aux_sym_temp_var_decls_repeat1, aux_sym_temp_var_decls_repeat1),
     (aux_sym_external_var_decls_repeat1, aux_sym_external_var_decls_repeat1),
     (aux_sym_global_var_decls_repeat1, aux_sym_global_var_decls_repeat1),
     (aux_sym_global_var_spec_repeat1, aux_sym_global_var_spec_repeat1),
     (aux_sym_loc_partly_var_decl_repeat1, aux_sym_loc_partly_var_decl_repeat1),
     (aux_sym_func_decl_repeat1, aux_sym_func_decl_repeat1),
     (aux_sym_func_decl_repeat2, aux_sym_func_decl_repeat2),
     (aux_sym_func_decl_repeat3, aux_sym_func_decl_repeat3),
     (aux_sym_fb_decl_repeat1, aux_sym_fb_decl_repeat1),
     (aux_sym_fb_decl_repeat2, aux_sym_fb_decl_repeat2),
     (aux_sym_fb_decl_repeat3, aux_sym_fb_decl_repeat3),
     (aux_sym_fb_input_decls_repeat1, aux_sym_fb_input_decls_repeat1),
     (aux_sym_fb_output_decls_repeat1, aux_sym_fb_output_decls_repeat1),
     (aux_sym_method_decl_repeat1, aux_sym_method_decl_repeat1),
     (aux_sym_interface_decl_repeat1, aux_sym_interface_decl_repeat1),
     (aux_sym_method_prototype_repeat1, aux_sym_method_prototype_repeat1),
     (aux_sym_interface_name_list_repeat1, aux_sym_interface_name_list_repeat1),
     (aux_sym_prog_decl_repeat1, aux_sym_prog_decl_repeat1),
     (aux_sym_prog_access_decls_repeat1, aux_sym_prog_access_decls_repeat1),
     (aux_sym_SFC_repeat1, aux_sym_SFC_repeat1),
     (aux_sym_SFC_network_repeat1, aux_sym_SFC_network_repeat1),
     (aux_sym_initial_step_repeat1, aux_sym_initial_step_repeat1),
     (aux_sym_action_association_repeat1, aux_sym_action_association_repeat1),
     (aux_sym_steps_repeat1, aux_sym_steps_repeat1),
     (aux_sym_config_decl_repeat1, aux_sym_config_decl_repeat1),
     (aux_sym_resource_decl_repeat1, aux_sym_resource_decl_repeat1),
     (aux_sym_access_decls_repeat1, aux_sym_access_decls_repeat1),
     (aux_sym_prog_conf_elems_repeat1, aux_sym_prog_conf_elems_repeat1),
     (aux_sym_config_init_repeat1, aux_sym_config_init_repeat1),
     (aux_sym_namespace_elements_repeat1, aux_sym_namespace_elements_repeat1),
     (aux_sym_namespace_h_name_repeat1, aux_sym_namespace_h_name_repeat1),
     (aux_sym_using_directive_repeat1, aux_sym_using_directive_repeat1),
     (aux_sym_func_call_repeat1, aux_sym_func_call_repeat1),
     (aux_sym_stmt_list_repeat1, aux_sym_stmt_list_repeat1),
     (aux_sym_if_stmt_repeat1, aux_sym_if_stmt_repeat1),
     (aux_sym_case_stmt_repeat1, aux_sym_case_stmt_repeat1),
     (aux_sym_case_list_repeat1, aux_sym_case_list_repeat1),
     (aux_sym_try_stmt_repeat1, aux_sym_try_stmt_repeat1),
     (aux_sym_index_value_repeat1, aux_sym_index_value_repeat1),
     (aux_sym_ladder_diagram_repeat1, aux_sym_ladder_diagram_repeat1),
     (aux_sym_fb_diagram_repeat1, aux_sym_fb_diagram_repeat1),
     (alias_sym_deref_sign, alias_sym_deref_sign), (alias_sym_field, alias_sym_field),
     (alias_sym_fold_and, alias_sym_fold_and), (alias_sym_fold_div, alias_sym_fold_div),
     (alias_sym_fold_eq, alias_sym_fold_eq), (alias_sym_fold_ge, alias_sym_fold_ge),
     (alias_sym_fold_gt, alias_sym_fold_gt), (alias_sym_fold_le, alias_sym_fold_le),
     (alias_sym_fold_lt, alias_sym_fold_lt), (alias_sym_fold_minus, alias_sym_fold_minus),
     (alias_sym_fold_mod, alias_sym_fold_mod), (alias_sym_fold_mul, alias_sym_fold_mul),
     (alias_sym_fold_ne, alias_sym_fold_ne), (alias_sym_fold_plus, alias_sym_fold_plus),
     (alias_sym_fold_power, alias_sym_fold_power), (alias_sym_fold_xor, alias_sym_fold_xor)]"

text \<open>Lines 1836 to 1839.\<close>

definition ts_symbol_map_5 :: "(TSSymbol \<times> TSSymbol) list" where
  "ts_symbol_map_5 =
    [(alias_sym_internal, alias_sym_internal), (alias_sym_partly, alias_sym_partly),
     (alias_sym_ref_to, alias_sym_ref_to), (alias_sym_target, alias_sym_target)]"

lemmas ts_symbol_map_parts =
  ts_symbol_map_1_def ts_symbol_map_2_def ts_symbol_map_3_def ts_symbol_map_4_def
  ts_symbol_map_5_def

definition symbol_map_entries :: "(TSSymbol \<times> TSSymbol) list" where
  "symbol_map_entries =
     ts_symbol_map_1 @ ts_symbol_map_2 @ ts_symbol_map_3 @ ts_symbol_map_4 @ ts_symbol_map_5"

definition ts_symbol_map :: "TSSymbol list" where
  "ts_symbol_map = designated_unsized 0 symbol_map_entries"

section \<open>How a tree shows a symbol\<close>

text \<open>A flag that an entry does not name is false.\<close>

datatype TSSymbolMetadata = Metadata (visible: bool) (named: bool) (supertype: bool)

text \<open>Lines 1843 to 1990.\<close>

definition ts_symbol_metadata_1 :: "(TSSymbol \<times> TSSymbolMetadata) list" where
  "ts_symbol_metadata_1 =
    [(ts_builtin_sym_end, Metadata False True False), (sym_identifier, Metadata True True False),
     (aux_sym_ERR_implements_before_extends_token1, Metadata True False False),
     (aux_sym_ERR_extends_multiple_times_token1, Metadata True False False),
     (aux_sym_ERR_doubled_qualifier_token1, Metadata True False False),
     (aux_sym_ERR_doubled_qualifier_token2, Metadata True False False),
     (aux_sym_ERR_doubled_retain_token1, Metadata True False False),
     (aux_sym_ERR_invalid_edge_qualifier_token1, Metadata False False False),
     (anon_sym_COLON_EQ, Metadata True False False), (anon_sym_EQ, Metadata True False False),
     (anon_sym_COLON, Metadata True False False), (anon_sym_EQ_GT, Metadata True False False),
     (aux_sym_ERR_unexpected_this_in_path_token1, Metadata True False False),
     (aux_sym_ERR_unexpected_super_in_path_token1, Metadata True False False),
     (anon_sym_COMMA, Metadata True False False),
     (aux_sym_ERR_single_after_interval_token1, Metadata True False False),
     (aux_sym_ERR_interval_after_priority_token1, Metadata True False False),
     (sym_line_comment, Metadata True True False), (anon_sym_LBRACE, Metadata True False False),
     (anon_sym_extern, Metadata True False False), (anon_sym_RBRACE, Metadata True False False),
     (anon_sym_LPAREN, Metadata True False False), (anon_sym_params, Metadata True False False),
     (anon_sym_RPAREN, Metadata True False False), (anon_sym_result, Metadata True False False),
     (anon_sym_wasm, Metadata True False False), (sym_pragma_string, Metadata True True False),
     (anon_sym_warn, Metadata True True False), (anon_sym_info, Metadata True True False),
     (anon_sym_allow, Metadata True False False),
     (aux_sym_test_pragma_token1, Metadata False False False),
     (aux_sym_once_pragma_token1, Metadata False False False),
     (aux_sym_must_call_pragma_token1, Metadata False False False),
     (aux_sym_export_pragma_token1, Metadata False False False),
     (anon_sym_POUND, Metadata True False False), (sym_unsigned_int, Metadata True True False),
     (sym__explicit_signed_int, Metadata False True False)]"

text \<open>Lines 1991 to 2138.\<close>

definition ts_symbol_metadata_2 :: "(TSSymbol \<times> TSSymbolMetadata) list" where
  "ts_symbol_metadata_2 =
    [(sym_binary_int, Metadata True True False), (sym_octal_int, Metadata True True False),
     (sym_hex_int, Metadata True True False),
     (sym__explicit_signed_real, Metadata False True False),
     (sym_real_value, Metadata True True False),
     (aux_sym_bool_literal_with_string_token1, Metadata True False False),
     (aux_sym_bool_literal_with_string_token2, Metadata True False False),
     (aux_sym_bool_literal_with_string_token3, Metadata True False False),
     (anon_sym_0, Metadata True False False), (anon_sym_1, Metadata True False False),
     (sym_s_byte_char_str, Metadata True True False),
     (sym_d_byte_char_str, Metadata True True False),
     (aux_sym_time_token1, Metadata True True False), (anon_sym_PLUS, Metadata True False False),
     (anon_sym_DASH, Metadata True False False), (aux_sym_ltime_token1, Metadata True True False),
     (sym_time_value, Metadata True True False), (aux_sym_tod_token1, Metadata True True False),
     (aux_sym_ltod_token1, Metadata True True False), (sym_daytime, Metadata True True False),
     (aux_sym_short_date_token1, Metadata True True False),
     (aux_sym_long_date_token1, Metadata True True False),
     (aux_sym_date_literal_token1, Metadata False False False),
     (aux_sym_short_date_and_time_token1, Metadata True True False),
     (aux_sym_long_date_and_time_token1, Metadata True True False),
     (aux_sym_sign_int_type_name_token1, Metadata True True False),
     (aux_sym_sign_int_type_name_token2, Metadata True True False),
     (aux_sym_sign_int_type_name_token3, Metadata True True False),
     (aux_sym_sign_int_type_name_token4, Metadata True True False),
     (aux_sym_unsign_int_type_name_token1, Metadata True True False),
     (aux_sym_unsign_int_type_name_token2, Metadata True True False),
     (aux_sym_unsign_int_type_name_token3, Metadata True True False),
     (aux_sym_unsign_int_type_name_token4, Metadata True True False),
     (aux_sym_real_type_name_token1, Metadata True True False),
     (aux_sym_real_type_name_token2, Metadata True True False),
     (aux_sym_string_name_token1, Metadata True False False),
     (anon_sym_LBRACK, Metadata True False False)]"

text \<open>Lines 2139 to 2286.\<close>

definition ts_symbol_metadata_3 :: "(TSSymbol \<times> TSSymbolMetadata) list" where
  "ts_symbol_metadata_3 =
    [(anon_sym_RBRACK, Metadata True False False),
     (aux_sym_char_name_token1, Metadata True False False),
     (sym_time_type_name, Metadata True True False),
     (sym_l_time_type_name, Metadata True True False),
     (sym_date_type_name, Metadata True True False),
     (sym_l_date_type_name, Metadata True True False),
     (sym_tod_type_name, Metadata True True False), (sym_ltod_type_name, Metadata True True False),
     (sym_dt_type_name, Metadata True True False), (sym_l_dt_type_name, Metadata True True False),
     (aux_sym_bit_str_type_name_token1, Metadata True True False),
     (aux_sym_multibits_type_name_token1, Metadata True True False),
     (aux_sym_multibits_type_name_token2, Metadata True True False),
     (aux_sym_multibits_type_name_token3, Metadata True True False),
     (aux_sym_multibits_type_name_token4, Metadata True True False),
     (aux_sym_data_type_decl_token1, Metadata True False False),
     (anon_sym_SEMI, Metadata True False False),
     (aux_sym_data_type_decl_token2, Metadata True False False),
     (anon_sym_DOT_DOT, Metadata True False False),
     (aux_sym_array_type_spec_token1, Metadata True False False),
     (aux_sym_array_type_spec_token2, Metadata True False False),
     (aux_sym_struct_type_spec_token1, Metadata True False False),
     (aux_sym_struct_type_spec_token2, Metadata True False False),
     (aux_sym_struct_type_spec_token3, Metadata True False False),
     (aux_sym_relative_located_at_token1, Metadata True False False),
     (anon_sym_PERCENT, Metadata True False False), (anon_sym_STAR, Metadata True False False),
     (anon_sym_DOT, Metadata True False False),
     (aux_sym_ref_type_spec_token1, Metadata True False False),
     (aux_sym_ref_value_token1, Metadata True True False),
     (aux_sym_ref_addr_token1, Metadata True False False),
     (anon_sym_CARET, Metadata True True False),
     (aux_sym_input_decls_token1, Metadata True False False),
     (aux_sym_input_decls_token2, Metadata True False False),
     (anon_sym_DOT_DOT_DOT, Metadata True False False),
     (aux_sym_edge_decl_token1, Metadata True False False),
     (aux_sym_edge_decl_token2, Metadata True False False)]"

text \<open>Lines 2287 to 2434.\<close>

definition ts_symbol_metadata_4 :: "(TSSymbol \<times> TSSymbolMetadata) list" where
  "ts_symbol_metadata_4 =
    [(aux_sym_output_decls_token1, Metadata True False False),
     (aux_sym_in_out_decls_token1, Metadata True False False),
     (aux_sym_var_decls_token1, Metadata True False False),
     (aux_sym_temp_var_decls_token1, Metadata True False False),
     (aux_sym_external_var_decls_token1, Metadata True False False),
     (aux_sym_global_var_decls_token1, Metadata True False False),
     (aux_sym_func_decl_token1, Metadata True False False),
     (aux_sym_func_decl_token2, Metadata True False False),
     (aux_sym_fb_decl_token1, Metadata True False False),
     (aux_sym_fb_decl_token2, Metadata True False False),
     (aux_sym_fb_decl_token3, Metadata True False False),
     (aux_sym_fb_decl_token4, Metadata True False False),
     (aux_sym_method_decl_token1, Metadata True False False),
     (aux_sym_method_decl_token2, Metadata True False False),
     (aux_sym_method_decl_token3, Metadata True False False),
     (aux_sym_class_decl_token1, Metadata True False False),
     (aux_sym_class_decl_token2, Metadata True False False),
     (aux_sym_interface_decl_token1, Metadata True False False),
     (aux_sym_interface_decl_token2, Metadata True False False),
     (aux_sym_access_spec_token1, Metadata True True False),
     (aux_sym_access_spec_token2, Metadata True True False),
     (aux_sym_access_spec_token3, Metadata True True False),
     (aux_sym_access_spec_token4, Metadata True False False),
     (aux_sym_prog_decl_token1, Metadata True False False),
     (aux_sym_prog_decl_token2, Metadata True False False),
     (aux_sym_prog_access_decls_token1, Metadata True False False),
     (aux_sym_initial_step_token1, Metadata True False False),
     (aux_sym_initial_step_token2, Metadata True False False),
     (aux_sym_step_token1, Metadata True False False), (anon_sym_N, Metadata True False False),
     (anon_sym_R, Metadata True False False), (anon_sym_S, Metadata True False False),
     (anon_sym_P, Metadata True False False), (anon_sym_L, Metadata True False False),
     (anon_sym_D, Metadata True False False),
     (aux_sym_action_qualifier_token1, Metadata True False False),
     (aux_sym_action_qualifier_token2, Metadata True False False)]"

text \<open>Lines 2435 to 2582.\<close>

definition ts_symbol_metadata_5 :: "(TSSymbol \<times> TSSymbolMetadata) list" where
  "ts_symbol_metadata_5 =
    [(aux_sym_action_qualifier_token3, Metadata True False False),
     (aux_sym_transition_token1, Metadata True False False),
     (aux_sym_transition_token2, Metadata True False False),
     (aux_sym_transition_token3, Metadata True False False),
     (aux_sym_transition_token4, Metadata True False False),
     (aux_sym_transition_token5, Metadata True False False),
     (aux_sym_action_token1, Metadata True False False),
     (aux_sym_action_token2, Metadata True False False),
     (aux_sym_config_decl_token1, Metadata True False False),
     (aux_sym_config_decl_token2, Metadata True False False),
     (aux_sym_resource_decl_token1, Metadata True False False),
     (aux_sym_resource_decl_token2, Metadata True False False),
     (aux_sym_resource_decl_token3, Metadata True False False),
     (aux_sym_access_direction_token1, Metadata True True False),
     (aux_sym_access_direction_token2, Metadata True True False),
     (aux_sym_task_config_token1, Metadata True False False),
     (aux_sym_prog_config_token1, Metadata True False False),
     (aux_sym_config_init_token1, Metadata True False False),
     (aux_sym_namespace_decl_token1, Metadata True False False),
     (aux_sym_namespace_decl_token2, Metadata True False False),
     (aux_sym_using_directive_token1, Metadata True False False),
     (anon_sym_SLASH, Metadata True False False), (anon_sym_STAR_STAR, Metadata True False False),
     (anon_sym_AMP, Metadata True False False), (anon_sym_PIPE, Metadata True True False),
     (anon_sym_LT_GT, Metadata True False False), (anon_sym_LT, Metadata True False False),
     (anon_sym_GT, Metadata True False False), (anon_sym_LT_EQ, Metadata True False False),
     (anon_sym_GT_EQ, Metadata True False False),
     (aux_sym_fold_operator_token1, Metadata True True False),
     (aux_sym_fold_operator_token2, Metadata True True False),
     (aux_sym_or_operator_token1, Metadata True False False),
     (aux_sym_xor_operator_token1, Metadata True False False),
     (aux_sym_and_operator_token1, Metadata True False False),
     (aux_sym_mult_token1, Metadata True False False),
     (aux_sym_unary_token1, Metadata True False False)]"

text \<open>Lines 2583 to 2730.\<close>

definition ts_symbol_metadata_6 :: "(TSSymbol \<times> TSSymbolMetadata) list" where
  "ts_symbol_metadata_6 =
    [(aux_sym__stmt_token1, Metadata True False False),
     (aux_sym__stmt_token2, Metadata True False False),
     (aux_sym__stmt_token3, Metadata True False False),
     (aux_sym_if_stmt_token1, Metadata True False False),
     (aux_sym_if_stmt_token2, Metadata True False False),
     (aux_sym_if_stmt_token3, Metadata True False False),
     (aux_sym_if_stmt_token4, Metadata True False False),
     (aux_sym_else_if_stmt_token1, Metadata True False False),
     (aux_sym_case_stmt_token1, Metadata True False False),
     (aux_sym_case_stmt_token2, Metadata True False False),
     (aux_sym_for_stmt_token1, Metadata True False False),
     (aux_sym_for_stmt_token2, Metadata True False False),
     (aux_sym_for_stmt_token3, Metadata True False False),
     (aux_sym_for_list_token1, Metadata True False False),
     (aux_sym_while_stmt_token1, Metadata True False False),
     (aux_sym_while_stmt_token2, Metadata True False False),
     (aux_sym_repeat_stmt_token1, Metadata True False False),
     (aux_sym_repeat_stmt_token2, Metadata True False False),
     (aux_sym_repeat_stmt_token3, Metadata True False False),
     (aux_sym_raise_stmt_token1, Metadata True False False),
     (aux_sym_try_stmt_token1, Metadata True False False),
     (aux_sym_try_stmt_token2, Metadata True False False),
     (aux_sym_catch_clause_token1, Metadata True False False),
     (aux_sym_finally_clause_token1, Metadata True False False),
     (aux_sym_ERR_end_try_spelling_token1, Metadata True False False),
     (anon_sym_LPAREN_RPAREN, Metadata True False False), (anon_sym_I, Metadata True False False),
     (anon_sym_Q, Metadata True False False), (anon_sym_M, Metadata True False False),
     (sym_ld_rung, Metadata True True False), (sym_fbd_network, Metadata True True False),
     (sym_adress_identifier, Metadata True True False),
     (sym_c_style_comment, Metadata True True False),
     (sym_pascal_style_comment, Metadata True True False), (sym_pragma, Metadata True True False),
     (sym__minus_before_base, Metadata True False False),
     (sym__plus_before_base, Metadata True False False)]"

text \<open>Lines 2731 to 2878.\<close>

definition ts_symbol_metadata_7 :: "(TSSymbol \<times> TSSymbolMetadata) list" where
  "ts_symbol_metadata_7 =
    [(sym_source_file, Metadata True True False),
     (sym_ERR_implements_before_extends, Metadata True True False),
     (sym_ERR_implements_multiple_times, Metadata True True False),
     (sym_ERR_extends_multiple_times, Metadata True True False),
     (sym_ERR_doubled_qualifier, Metadata True True False),
     (sym_ERR_doubled_retain, Metadata True True False),
     (sym_ERR_doubled_non_retain, Metadata True True False),
     (sym_ERR_doubled_constant, Metadata True True False),
     (sym_ERR_doubled_global_qualifier, Metadata True True False),
     (sym_ERR_variable_with_no_spec, Metadata True True False),
     (sym_ERR_config_entry_with_no_spec, Metadata True True False),
     (sym_ERR_invalid_edge_qualifier, Metadata True True False),
     (sym_ERR_empty_right_hand_assignment, Metadata True True False),
     (sym_ERR_assign_func_call, Metadata True True False),
     (sym_ERR_missing_dot_in_assignment, Metadata True True False),
     (sym_ERR_missing_equal_in_assignment, Metadata True True False),
     (sym_ERR_missing_dot_in_for_control, Metadata True True False),
     (sym_ERR_missing_equal_in_for_control, Metadata True True False),
     (sym_ERR_assign_in_condition, Metadata True True False),
     (sym_ERR_output_assign_in_assignment, Metadata True True False),
     (sym_ERR_output_assign_in_for_control, Metadata True True False),
     (sym_ERR_unexpected_this_in_path, Metadata True True False),
     (sym_ERR_unexpected_super_in_path, Metadata True True False),
     (sym_ERR_func_call_in_init, Metadata True True False),
     (sym_ERR_class_variables_after_method, Metadata True True False),
     (sym_ERR_fb_variables_after_method, Metadata True True False),
     (sym_ERR_program_not_allowed_in_namespace, Metadata True True False),
     (sym_ERR_config_not_allowed_in_namespace, Metadata True True False),
     (sym_ERR_single_after_interval, Metadata True True False),
     (sym_ERR_interval_after_priority, Metadata True True False),
     (sym_ERR_single_after_priorty, Metadata True True False),
     (sym_ERR_var_in_out_not_allowed, Metadata True True False),
     (sym_ERR_var_temp_not_allowed, Metadata True True False),
     (sym_ERR_variadic_fb_input, Metadata True True False),
     (sym_ERR_var_access_not_allowed, Metadata True True False),
     (sym_ERR_var_config_not_allowed, Metadata True True False),
     (sym_ERR_var_external_not_allowed, Metadata True True False)]"

text \<open>Lines 2879 to 3026.\<close>

definition ts_symbol_metadata_8 :: "(TSSymbol \<times> TSSymbolMetadata) list" where
  "ts_symbol_metadata_8 =
    [(sym_ERR_var_global_not_allowed, Metadata True True False),
     (sym_ERR_task_or_program_outside_resource, Metadata True True False),
     (sym_ERR_var_not_allowed, Metadata True True False),
     (sym_ERR_access_spec_in_method_prototype, Metadata True True False),
     (sym_ERR_method_decl_in_body, Metadata True True False),
     (sym_extern_pragma, Metadata True True False),
     (sym_extern_param_list, Metadata True True False),
     (sym_extern_result, Metadata True True False), (sym_wasm_pragma, Metadata True True False),
     (sym_warn_pragma, Metadata True True False), (sym_warn_pragma_level, Metadata True True False),
     (sym_allow_pragma, Metadata True True False), (sym_test_pragma, Metadata True True False),
     (sym_once_pragma, Metadata True True False), (sym_must_call_pragma, Metadata True True False),
     (sym_export_pragma, Metadata True True False), (sym_pou_pragma, Metadata True True False),
     (sym_constant, Metadata True True False), (sym_numeric_literal, Metadata True True False),
     (sym_int_literal, Metadata True True False), (sym_int_kind, Metadata True True False),
     (sym_signed_int, Metadata True True False), (sym_real_literal, Metadata True True False),
     (sym_signed_real_value, Metadata True True False),
     (sym_bool_literal, Metadata True True False),
     (sym_bool_literal_with_string, Metadata True True False),
     (sym_bool_literal_with_numeric, Metadata True True False),
     (sym_char_literal, Metadata True True False), (sym_char_str, Metadata True True False),
     (sym_time_literal, Metadata True True False), (sym_duration, Metadata True True False),
     (sym_time, Metadata True True False), (sym_ltime, Metadata True True False),
     (sym_time_of_day, Metadata True True False), (sym_tod, Metadata True True False),
     (sym_ltod, Metadata True True False), (sym_date, Metadata True True False)]"

text \<open>Lines 3027 to 3176.\<close>

definition ts_symbol_metadata_9 :: "(TSSymbol \<times> TSSymbolMetadata) list" where
  "ts_symbol_metadata_9 =
    [(sym_short_date, Metadata True True False), (sym_long_date, Metadata True True False),
     (sym_date_literal, Metadata True True False), (sym_date_and_time, Metadata True True False),
     (sym_short_date_and_time, Metadata True True False),
     (sym_long_date_and_time, Metadata True True False),
     (sym_date_and_daytime, Metadata True True False),
     (sym_data_type_access, Metadata False True True),
     (sym__elem_type_name, Metadata False True True),
     (sym_numeric_type_name, Metadata True True False),
     (sym_int_type_name, Metadata True True False),
     (sym_sign_int_type_name, Metadata True True False),
     (sym_unsign_int_type_name, Metadata True True False),
     (sym_real_type_name, Metadata True True False),
     (sym_string_type_name, Metadata True True False), (sym_string_name, Metadata True True False),
     (sym_char_name, Metadata True True False), (sym_bit_str_type_name, Metadata True True False),
     (sym_multibits_type_name, Metadata True True False),
     (sym_data_type_decl, Metadata True True False), (sym_type_decl, Metadata True True False),
     (sym_simple_type_spec, Metadata True True False),
     (sym_simple_type_init, Metadata True True False),
     (sym_subrange_type_spec, Metadata True True False), (sym_subrange, Metadata True True False),
     (sym_enum_type_spec, Metadata True True False), (sym_enum_spec, Metadata True True False),
     (sym_enum_value_spec, Metadata True True False), (sym_enum_value, Metadata True True False),
     (sym_array_type_spec, Metadata True True False),
     (sym_array_type_init, Metadata True True False), (sym_ranges, Metadata True True False),
     (sym_struct_type_spec, Metadata True True False),
     (sym_struct_type_init, Metadata True True False), (sym_init_elem, Metadata True True False),
     (sym__array_item, Metadata False True False), (sym_array_init, Metadata True True False)]"

text \<open>Lines 3177 to 3322.\<close>

definition ts_symbol_metadata_10 :: "(TSSymbol \<times> TSSymbolMetadata) list" where
  "ts_symbol_metadata_10 =
    [(sym_element_at, Metadata True True False), (sym__element_value, Metadata False True False),
     (sym_array_index_elem, Metadata True True False), (sym_array_values, Metadata True True False),
     (sym_repeat_values, Metadata True True False), (sym_struct_init, Metadata True True False),
     (sym_struct_elem, Metadata True True False), (sym_struct_elem_decl, Metadata True True False),
     (sym_struct_elem_decl_attributes, Metadata True True False),
     (sym_relative_located_at, Metadata True True False),
     (sym_relative_direct_variable, Metadata True True False),
     (sym_relative_offset, Metadata True True False),
     (sym_direct_variable, Metadata True True False), (sym_offset, Metadata True True False),
     (sym_ref_type_spec, Metadata True True False), (sym_ref_spec, Metadata True True False),
     (sym_ref_value, Metadata True True False), (sym_ref_addr, Metadata True True False),
     (sym_deref_expression, Metadata True True False), (sym_variable, Metadata True True False),
     (sym_var_access, Metadata True True False), (sym_input_decls, Metadata True True False),
     (sym_input_var, Metadata True True False), (sym__input_var_kind, Metadata False True True),
     (sym_variadic_decl, Metadata True True False), (sym_edge_decl, Metadata True True False),
     (sym_var_decl_init, Metadata True True False), (sym_var_decl, Metadata True True False),
     (sym_variable_list, Metadata True True False),
     (sym_array_conformand, Metadata True True False),
     (sym_conformand_dimension, Metadata True True False),
     (sym_output_decls, Metadata True True False), (sym_output_var, Metadata True True False),
     (sym__output_var_kind, Metadata False True True), (sym_in_out_decls, Metadata True True False),
     (sym_in_out_var, Metadata True True False)]"

text \<open>Lines 3323 to 3471.\<close>

definition ts_symbol_metadata_11 :: "(TSSymbol \<times> TSSymbolMetadata) list" where
  "ts_symbol_metadata_11 =
    [(sym__in_out_var_kind, Metadata False True True), (sym_var_decls, Metadata True True False),
     (sym_retain_var_decls, Metadata True True False),
     (sym_var_decl_init_list, Metadata True True False),
     (sym_loc_var_decl, Metadata True True False), (sym_temp_var_decls, Metadata True True False),
     (sym_temp_var, Metadata True True False), (sym__temp_var_kind, Metadata False True True),
     (sym_external_var_decls, Metadata True True False),
     (sym_external_decl, Metadata True True False),
     (sym__external_var_kind, Metadata False True True),
     (sym_global_var_decls, Metadata True True False),
     (sym_global_var_decl, Metadata True True False),
     (sym__global_var_kind, Metadata False True True),
     (sym_global_var_spec, Metadata True True False),
     (sym_loc_var_spec_init, Metadata True True False), (sym_located_at, Metadata True True False),
     (sym_loc_partly_var_decl, Metadata True True False),
     (sym_loc_partly_var, Metadata True True False), (sym_var_spec, Metadata True True False),
     (sym_func_decl, Metadata True True False), (sym__func_variables, Metadata False True True),
     (sym_func_body, Metadata True True False), (sym_fb_decl, Metadata True True False),
     (sym__fb_variables, Metadata False True True), (sym_fb_input_decls, Metadata True True False),
     (sym_fb_input_var, Metadata True True False),
     (sym__fb_input_var_kind, Metadata False True True),
     (sym_fb_output_decls, Metadata True True False), (sym_fb_output_var, Metadata True True False),
     (sym__fb_output_var_kind, Metadata False True True),
     (sym_no_retain_var_decls, Metadata True True False), (sym_fb_body, Metadata True True False),
     (sym_method_decl, Metadata True True False),
     (sym__method_decl_variables, Metadata False True True)]"

text \<open>Lines 3472 to 3618.\<close>

definition ts_symbol_metadata_12 :: "(TSSymbol \<times> TSSymbolMetadata) list" where
  "ts_symbol_metadata_12 =
    [(sym_class_decl, Metadata True True False), (sym__class_variables, Metadata False True True),
     (sym_interface_decl, Metadata True True False),
     (sym_method_prototype, Metadata True True False),
     (sym__method_prot_variables, Metadata False True True),
     (sym_interface_name_list, Metadata True True False),
     (sym_access_spec, Metadata True True False), (sym_prog_decl, Metadata True True False),
     (sym_prog_access_decls, Metadata True True False),
     (sym_prog_access_decl, Metadata True True False), (sym_SFC, Metadata True True False),
     (sym_SFC_network, Metadata True True False), (sym_initial_step, Metadata True True False),
     (sym_step, Metadata True True False), (sym_step_name, Metadata True True False),
     (sym_action_association, Metadata True True False),
     (sym_action_name, Metadata True True False), (sym_action_qualifier, Metadata True True False),
     (sym_action_time, Metadata True True False), (sym_transition, Metadata True True False),
     (sym_transition_name, Metadata True True False), (sym_steps, Metadata True True False),
     (sym_transition_cond, Metadata True True False), (sym_action, Metadata True True False),
     (sym_config_decl, Metadata True True False), (sym__config_variables, Metadata False True True),
     (sym_resource_decl, Metadata True True False),
     (sym_single_resource_decl, Metadata True True False),
     (sym_access_decls, Metadata True True False), (sym_access_decl, Metadata True True False),
     (sym_access_path, Metadata True True False), (sym_access_direction, Metadata True True False),
     (sym_task_config, Metadata True True False), (sym_task_init, Metadata True True False),
     (sym_data_source, Metadata True True False), (sym_prog_config, Metadata True True False)]"

text \<open>Lines 3619 to 3765.\<close>

definition ts_symbol_metadata_13 :: "(TSSymbol \<times> TSSymbolMetadata) list" where
  "ts_symbol_metadata_13 =
    [(sym_prog_conf_elems, Metadata True True False),
     (sym_prog_conf_elem, Metadata True True False), (sym_fb_task, Metadata True True False),
     (sym_prog_cnxn, Metadata True True False), (sym_prog_data_source, Metadata True True False),
     (sym_data_sink, Metadata True True False), (sym_config_init, Metadata True True False),
     (sym_config_inst_init, Metadata True True False),
     (sym_namespace_decl, Metadata True True False),
     (sym_namespace_elements, Metadata True True False),
     (sym_namespace_h_name, Metadata True True False),
     (sym_using_directive, Metadata True True False), (sym__expression, Metadata False True True),
     (sym_fold_expression, Metadata True True False), (sym_pack_element, Metadata True True False),
     (sym_fold_operator, Metadata True True False),
     (sym__primary_expression, Metadata False True True),
     (sym_parenthesized_expression, Metadata True True False),
     (sym_boolean_operator, Metadata True True False), (sym_or_operator, Metadata True True False),
     (sym_xor_operator, Metadata True True False), (sym_and_operator, Metadata True True False),
     (sym_comparison_operator, Metadata True True False),
     (sym_eq_operator, Metadata True True False), (sym_ord_operator, Metadata True True False),
     (sym_eq, Metadata False True True), (sym_ord, Metadata False True True),
     (sym_add_operator, Metadata True True False), (sym_add, Metadata False True True),
     (sym_mult_operator, Metadata True True False), (sym_mult, Metadata False True True),
     (sym_power_operator, Metadata True True False), (sym_unary_operator, Metadata True True False),
     (sym_unary, Metadata False True True), (sym_constant_expr, Metadata True True False)]"

text \<open>Lines 3766 to 3914.\<close>

definition ts_symbol_metadata_14 :: "(TSSymbol \<times> TSSymbolMetadata) list" where
  "ts_symbol_metadata_14 =
    [(sym_variable_access, Metadata True True False),
     (sym_multibit_part_access, Metadata True True False), (sym_multibit, Metadata True True False),
     (sym_func_call, Metadata True True False), (sym_stmt_list, Metadata True True False),
     (sym__stmt, Metadata False True True), (sym_assign, Metadata True True False),
     (sym_assignment, Metadata True True False), (sym_param_assign, Metadata True True False),
     (sym_param_assign_input, Metadata True True False),
     (sym_param_assign_output, Metadata True True False), (sym_if_stmt, Metadata True True False),
     (sym_else_if_stmt, Metadata True True False), (sym_case_stmt, Metadata True True False),
     (sym_case_selection, Metadata True True False), (sym_case_body, Metadata True True False),
     (sym_case_list, Metadata True True False), (sym_case_list_elem, Metadata True True False),
     (sym_for_stmt, Metadata True True False), (sym_for_list, Metadata True True False),
     (sym_while_stmt, Metadata True True False), (sym_repeat_stmt, Metadata True True False),
     (sym_raise_stmt, Metadata True True False), (sym_try_stmt, Metadata True True False),
     (sym_catch_clause, Metadata True True False), (sym_finally_clause, Metadata True True False),
     (sym_ERR_clause_outside_try, Metadata True True False),
     (sym_ERR_end_try_spelling, Metadata True True False),
     (sym_namespace_access, Metadata True True False),
     (sym_scoped_identifier, Metadata True True False), (sym__path, Metadata False True False),
     (sym_begin_path_expression, Metadata True True False),
     (sym_invocation, Metadata True True False), (sym_any_invocation, Metadata True True False),
     (sym_any_invocation_kind, Metadata True True False),
     (sym_this_invocation, Metadata True True False),
     (sym_super_invocation, Metadata True True False)]"

text \<open>Lines 3915 to 4062.\<close>

definition ts_symbol_metadata_15 :: "(TSSymbol \<times> TSSymbolMetadata) list" where
  "ts_symbol_metadata_15 =
    [(sym_super_body_invocation, Metadata True True False),
     (sym_path_expression, Metadata True True False),
     (sym_field_expression, Metadata True True False),
     (sym_index_expression, Metadata True True False), (sym_index_value, Metadata True True False),
     (sym_IQM, Metadata True True False), (sym_ladder_diagram, Metadata True True False),
     (sym_fb_diagram, Metadata True True False),
     (aux_sym_source_file_repeat1, Metadata False False False),
     (aux_sym_ERR_doubled_qualifier_repeat1, Metadata False False False),
     (aux_sym_ERR_doubled_retain_repeat1, Metadata False False False),
     (aux_sym_ERR_class_variables_after_method_repeat1, Metadata False False False),
     (aux_sym_ERR_fb_variables_after_method_repeat1, Metadata False False False),
     (aux_sym_extern_param_list_repeat1, Metadata False False False),
     (aux_sym_allow_pragma_repeat1, Metadata False False False),
     (aux_sym_data_type_decl_repeat1, Metadata False False False),
     (aux_sym_enum_spec_repeat1, Metadata False False False),
     (aux_sym_array_type_init_repeat1, Metadata False False False),
     (aux_sym_ranges_repeat1, Metadata False False False),
     (aux_sym_struct_type_spec_repeat1, Metadata False False False),
     (aux_sym_struct_type_init_repeat1, Metadata False False False),
     (aux_sym_struct_init_repeat1, Metadata False False False),
     (aux_sym_relative_offset_repeat1, Metadata False False False),
     (aux_sym_ref_type_spec_repeat1, Metadata False False False),
     (aux_sym_deref_expression_repeat1, Metadata False False False),
     (aux_sym_input_decls_repeat1, Metadata False False False),
     (aux_sym_variable_list_repeat1, Metadata False False False),
     (aux_sym_array_conformand_repeat1, Metadata False False False),
     (aux_sym_output_decls_repeat1, Metadata False False False),
     (aux_sym_in_out_decls_repeat1, Metadata False False False),
     (aux_sym_var_decls_repeat1, Metadata False False False),
     (aux_sym_temp_var_decls_repeat1, Metadata False False False),
     (aux_sym_external_var_decls_repeat1, Metadata False False False),
     (aux_sym_global_var_decls_repeat1, Metadata False False False),
     (aux_sym_global_var_spec_repeat1, Metadata False False False),
     (aux_sym_loc_partly_var_decl_repeat1, Metadata False False False),
     (aux_sym_func_decl_repeat1, Metadata False False False)]"

text \<open>Lines 4063 to 4210.\<close>

definition ts_symbol_metadata_16 :: "(TSSymbol \<times> TSSymbolMetadata) list" where
  "ts_symbol_metadata_16 =
    [(aux_sym_func_decl_repeat2, Metadata False False False),
     (aux_sym_func_decl_repeat3, Metadata False False False),
     (aux_sym_fb_decl_repeat1, Metadata False False False),
     (aux_sym_fb_decl_repeat2, Metadata False False False),
     (aux_sym_fb_decl_repeat3, Metadata False False False),
     (aux_sym_fb_input_decls_repeat1, Metadata False False False),
     (aux_sym_fb_output_decls_repeat1, Metadata False False False),
     (aux_sym_method_decl_repeat1, Metadata False False False),
     (aux_sym_interface_decl_repeat1, Metadata False False False),
     (aux_sym_method_prototype_repeat1, Metadata False False False),
     (aux_sym_interface_name_list_repeat1, Metadata False False False),
     (aux_sym_prog_decl_repeat1, Metadata False False False),
     (aux_sym_prog_access_decls_repeat1, Metadata False False False),
     (aux_sym_SFC_repeat1, Metadata False False False),
     (aux_sym_SFC_network_repeat1, Metadata False False False),
     (aux_sym_initial_step_repeat1, Metadata False False False),
     (aux_sym_action_association_repeat1, Metadata False False False),
     (aux_sym_steps_repeat1, Metadata False False False),
     (aux_sym_config_decl_repeat1, Metadata False False False),
     (aux_sym_resource_decl_repeat1, Metadata False False False),
     (aux_sym_access_decls_repeat1, Metadata False False False),
     (aux_sym_prog_conf_elems_repeat1, Metadata False False False),
     (aux_sym_config_init_repeat1, Metadata False False False),
     (aux_sym_namespace_elements_repeat1, Metadata False False False),
     (aux_sym_namespace_h_name_repeat1, Metadata False False False),
     (aux_sym_using_directive_repeat1, Metadata False False False),
     (aux_sym_func_call_repeat1, Metadata False False False),
     (aux_sym_stmt_list_repeat1, Metadata False False False),
     (aux_sym_if_stmt_repeat1, Metadata False False False),
     (aux_sym_case_stmt_repeat1, Metadata False False False),
     (aux_sym_case_list_repeat1, Metadata False False False),
     (aux_sym_try_stmt_repeat1, Metadata False False False),
     (aux_sym_index_value_repeat1, Metadata False False False),
     (aux_sym_ladder_diagram_repeat1, Metadata False False False),
     (aux_sym_fb_diagram_repeat1, Metadata False False False),
     (alias_sym_deref_sign, Metadata True True False), (alias_sym_field, Metadata True True False)]"

text \<open>Lines 4211 to 4282.\<close>

definition ts_symbol_metadata_17 :: "(TSSymbol \<times> TSSymbolMetadata) list" where
  "ts_symbol_metadata_17 =
    [(alias_sym_fold_and, Metadata True True False), (alias_sym_fold_div, Metadata True True False),
     (alias_sym_fold_eq, Metadata True True False), (alias_sym_fold_ge, Metadata True True False),
     (alias_sym_fold_gt, Metadata True True False), (alias_sym_fold_le, Metadata True True False),
     (alias_sym_fold_lt, Metadata True True False),
     (alias_sym_fold_minus, Metadata True True False),
     (alias_sym_fold_mod, Metadata True True False), (alias_sym_fold_mul, Metadata True True False),
     (alias_sym_fold_ne, Metadata True True False), (alias_sym_fold_plus, Metadata True True False),
     (alias_sym_fold_power, Metadata True True False),
     (alias_sym_fold_xor, Metadata True True False), (alias_sym_internal, Metadata True True False),
     (alias_sym_partly, Metadata True True False), (alias_sym_ref_to, Metadata True True False),
     (alias_sym_target, Metadata True True False)]"

lemmas ts_symbol_metadata_parts =
  ts_symbol_metadata_1_def ts_symbol_metadata_2_def ts_symbol_metadata_3_def
  ts_symbol_metadata_4_def ts_symbol_metadata_5_def ts_symbol_metadata_6_def
  ts_symbol_metadata_7_def ts_symbol_metadata_8_def ts_symbol_metadata_9_def
  ts_symbol_metadata_10_def ts_symbol_metadata_11_def ts_symbol_metadata_12_def
  ts_symbol_metadata_13_def ts_symbol_metadata_14_def ts_symbol_metadata_15_def
  ts_symbol_metadata_16_def ts_symbol_metadata_17_def

definition symbol_metadata_entries :: "(TSSymbol \<times> TSSymbolMetadata) list" where
  "symbol_metadata_entries =
     ts_symbol_metadata_1 @ ts_symbol_metadata_2 @ ts_symbol_metadata_3 @ ts_symbol_metadata_4 @
     ts_symbol_metadata_5 @ ts_symbol_metadata_6 @ ts_symbol_metadata_7 @ ts_symbol_metadata_8 @
     ts_symbol_metadata_9 @ ts_symbol_metadata_10 @ ts_symbol_metadata_11 @
     ts_symbol_metadata_12 @ ts_symbol_metadata_13 @ ts_symbol_metadata_14 @
     ts_symbol_metadata_15 @ ts_symbol_metadata_16 @ ts_symbol_metadata_17"

definition ts_symbol_metadata :: "TSSymbolMetadata list" where
  "ts_symbol_metadata = designated_unsized (Metadata False False False) symbol_metadata_entries"

section \<open>Supertypes\<close>

text \<open>Lines 35161 to 35186.\<close>

definition ts_supertype_symbols :: "TSSymbol list" where
  "ts_supertype_symbols =
    [sym__class_variables, sym__config_variables, sym__elem_type_name, sym__expression,
     sym__external_var_kind, sym__fb_input_var_kind, sym__fb_output_var_kind, sym__fb_variables,
     sym__func_variables, sym__global_var_kind, sym__in_out_var_kind, sym__input_var_kind,
     sym__method_decl_variables, sym__method_prot_variables, sym__output_var_kind,
     sym__primary_expression, sym__stmt, sym__temp_var_kind, sym_add, sym_data_type_access, sym_eq,
     sym_mult, sym_ord, sym_unary]"

datatype TSMapSlice = Slice (slice_index: nat) (slice_length: nat)

text \<open>The part of an array that a slice names.\<close>

definition slice_of :: "'a list \<Rightarrow> TSMapSlice \<Rightarrow> 'a list" where
  "slice_of xs s = take (slice_length s) (drop (slice_index s) xs)"

context run_table
begin

lemma table_slices: "list_all (\<lambda>(i, vs). slice_of table (Slice i (run_length vs)) = vs) rs"
  using table_runs by (simp add: slice_of_def run_length)

lemma table_slice: "(i, vs) \<in> set rs \<Longrightarrow> n = length vs \<Longrightarrow> slice_of table (Slice i n) = vs"
  using table_runs by (auto simp: slice_of_def list_all_iff)

end

text \<open>Lines 35188 to 35213.\<close>

definition supertype_slice_entries :: "(TSSymbol \<times> TSMapSlice) list" where
  "supertype_slice_entries =
    [(sym__class_variables, Slice 0 11), (sym__config_variables, Slice 11 5),
     (sym__elem_type_name, Slice 16 11), (sym__expression, Slice 27 9),
     (sym__external_var_kind, Slice 36 2), (sym__fb_input_var_kind, Slice 38 4),
     (sym__fb_output_var_kind, Slice 42 2), (sym__fb_variables, Slice 44 12),
     (sym__func_variables, Slice 56 10), (sym__global_var_kind, Slice 66 2),
     (sym__in_out_var_kind, Slice 68 2), (sym__input_var_kind, Slice 70 4),
     (sym__method_decl_variables, Slice 74 10), (sym__method_prot_variables, Slice 84 9),
     (sym__output_var_kind, Slice 93 2), (sym__primary_expression, Slice 95 6),
     (sym__stmt, Slice 101 17), (sym__temp_var_kind, Slice 118 2), (sym_add, Slice 120 2),
     (sym_data_type_access, Slice 122 2), (sym_eq, Slice 124 2), (sym_mult, Slice 126 3),
     (sym_ord, Slice 129 4), (sym_unary, Slice 133 5)]"

definition ts_supertype_map_slices :: "TSMapSlice list" where
  "ts_supertype_map_slices = designated_unsized (Slice 0 0) supertype_slice_entries"

text \<open>Lines 35216 to 35362.\<close>

definition ts_supertype_map_entries_1 :: "(nat \<times> TSSymbol list) list" where
  "ts_supertype_map_entries_1 =
    [(0, [sym_ERR_var_access_not_allowed, sym_ERR_var_config_not_allowed,
        sym_ERR_var_external_not_allowed, sym_ERR_var_global_not_allowed,
        sym_ERR_var_in_out_not_allowed, sym_ERR_var_temp_not_allowed, sym_external_var_decls,
        sym_loc_partly_var_decl, sym_no_retain_var_decls, sym_retain_var_decls,
        sym_var_decls]),
     (11, [sym_ERR_var_external_not_allowed, sym_ERR_var_in_out_not_allowed,
        sym_ERR_var_not_allowed, sym_ERR_var_temp_not_allowed, sym_global_var_decls]),
     (16, [sym_bit_str_type_name, sym_date_type_name, sym_dt_type_name, sym_l_date_type_name,
        sym_l_dt_type_name, sym_l_time_type_name, sym_ltod_type_name, sym_numeric_type_name,
        sym_string_type_name, sym_time_type_name, sym_tod_type_name]),
     (27, [sym__primary_expression, sym_add_operator, sym_boolean_operator,
        sym_comparison_operator, sym_fold_expression, sym_mult_operator, sym_pack_element,
        sym_power_operator, sym_unary_operator]),
     (36, [sym_array_conformand, sym_var_decl]),
     (38, [sym_ERR_variadic_fb_input, sym_array_conformand, sym_edge_decl, sym_var_decl_init]),
     (42, [sym_array_conformand, sym_var_decl_init]),
     (44, [sym_ERR_var_access_not_allowed, sym_ERR_var_config_not_allowed,
        sym_ERR_var_global_not_allowed, sym_external_var_decls, sym_fb_input_decls,
        sym_fb_output_decls, sym_in_out_decls, sym_loc_partly_var_decl,
        sym_no_retain_var_decls, sym_retain_var_decls, sym_temp_var_decls, sym_var_decls]),
     (56, [sym_ERR_var_access_not_allowed, sym_ERR_var_config_not_allowed,
        sym_ERR_var_external_not_allowed, sym_ERR_var_global_not_allowed,
        sym_external_var_decls, sym_in_out_decls, sym_input_decls, sym_output_decls,
        sym_temp_var_decls, sym_var_decls]),
     (66, [sym_loc_var_spec_init, sym_namespace_access]),
     (68, [sym_array_conformand, sym_var_decl]),
     (70, [sym_array_conformand, sym_edge_decl, sym_var_decl_init, sym_variadic_decl]),
     (74, [sym_ERR_var_access_not_allowed, sym_ERR_var_config_not_allowed,
        sym_ERR_var_external_not_allowed, sym_ERR_var_global_not_allowed,
        sym_external_var_decls, sym_in_out_decls, sym_input_decls, sym_output_decls,
        sym_temp_var_decls, sym_var_decls]),
     (84, [sym_ERR_var_access_not_allowed, sym_ERR_var_config_not_allowed,
        sym_ERR_var_external_not_allowed, sym_ERR_var_global_not_allowed,
        sym_ERR_var_in_out_not_allowed, sym_ERR_var_temp_not_allowed, sym_in_out_decls,
        sym_input_decls, sym_output_decls]),
     (93, [sym_array_conformand, sym_var_decl_init]),
     (95, [sym_constant, sym_enum_value, sym_func_call, sym_parenthesized_expression,
        sym_ref_value, sym_variable_access]),
     (101, [aux_sym__stmt_token1, aux_sym__stmt_token2, aux_sym__stmt_token3,
        sym_ERR_clause_outside_try, sym_ERR_method_decl_in_body, sym_allow_pragma, sym_assign,
        sym_begin_path_expression, sym_case_stmt, sym_for_stmt, sym_func_call, sym_if_stmt,
        sym_raise_stmt, sym_repeat_stmt, sym_try_stmt, sym_wasm_pragma, sym_while_stmt]),
     (118, [sym_ref_spec, sym_var_decl]),
     (120, [anon_sym_DASH, anon_sym_PLUS]),
     (122, [sym__elem_type_name, sym_namespace_access]),
     (124, [anon_sym_EQ, anon_sym_LT_GT])]"

text \<open>Lines 35363 to 35377.\<close>

definition ts_supertype_map_entries_2 :: "(nat \<times> TSSymbol list) list" where
  "ts_supertype_map_entries_2 =
    [(126, [anon_sym_SLASH, anon_sym_STAR, aux_sym_mult_token1]),
     (129, [anon_sym_GT, anon_sym_GT_EQ, anon_sym_LT, anon_sym_LT_EQ]),
     (133, [anon_sym_DASH, anon_sym_PLUS, aux_sym_unary_token1, sym__minus_before_base,
        sym__plus_before_base])]"

definition supertype_runs :: "(nat \<times> TSSymbol list) list" where
  "supertype_runs =
     ts_supertype_map_entries_1 @ ts_supertype_map_entries_2"

definition ts_supertype_map_entries :: "TSSymbol list" where
  "ts_supertype_map_entries = runs 0 supertype_runs"

lemmas ts_supertype_map_entries_parts =
  ts_supertype_map_entries_1_def ts_supertype_map_entries_2_def

definition SUPERTYPE_COUNT :: nat where "SUPERTYPE_COUNT = 24"

end
