(* ===== verification/Symbol_Properties.thy ===== *)
theory Symbol_Properties
  imports Symbol_Tables "HOL-Library.List_Lexorder"
begin

text \<open>
  The properties of the symbols of the language: their names tell them apart, the symbols shown in
  place of others keep their names and flags, the names of tokens are read back as these tokens, and
  the supertypes are what the metadata says.
\<close>

section \<open>Reading the tables\<close>

lemmas symbol_numbers = token_numbers grammar_symbol_numbers

lemma symbol_names_increasing:
  "increasing_from 0 symbol_name_entries \<and> after_designators 0 symbol_name_entries = 604 \<and>
   length symbol_name_entries = 604"
  unfolding symbol_name_entries_def ts_symbol_names_parts increasing_append after_append
  by (simp add: symbol_numbers cong: designators_weak)

lemma symbol_map_increasing:
  "increasing_from 0 symbol_map_entries \<and> after_designators 0 symbol_map_entries = 604 \<and>
   length symbol_map_entries = 604"
  unfolding symbol_map_entries_def ts_symbol_map_parts increasing_append after_append
  by (simp add: symbol_numbers cong: designators_weak)

lemma symbol_metadata_increasing:
  "increasing_from 0 symbol_metadata_entries \<and> after_designators 0 symbol_metadata_entries = 604"
  unfolding symbol_metadata_entries_def ts_symbol_metadata_parts increasing_append after_append
  by (simp add: symbol_numbers cong: designators_weak)

interpretation names: designated_table 604 None "map (map_prod id Some) symbol_name_entries" ts_symbol_names
  using symbol_names_increasing
  by unfold_locales (simp_all add: ts_symbol_names_def designated_unsized)

interpretation shown: designated_table 604 0 symbol_map_entries ts_symbol_map
  using symbol_map_increasing
  by unfold_locales (simp_all add: ts_symbol_map_def designated_unsized)

interpretation flags: designated_table 604 "Metadata False False False" symbol_metadata_entries
    ts_symbol_metadata
  using symbol_metadata_increasing
  by unfold_locales (simp_all add: ts_symbol_metadata_def designated_unsized)

definition symbol_name :: "TSSymbol \<Rightarrow> string" where
  "symbol_name y = the (ts_symbol_names ! y)"

definition public_symbol :: "TSSymbol \<Rightarrow> TSSymbol" where
  "public_symbol y = ts_symbol_map ! y"

definition metadata :: "TSSymbol \<Rightarrow> TSSymbolMetadata" where
  "metadata y = ts_symbol_metadata ! y"

lemma symbol_name_entry: "list_all (\<lambda>(y, n). symbol_name y = n) symbol_name_entries"
  using names.table_at by (force simp: list_all_iff symbol_name_def)

lemma public_symbol_entry: "list_all (\<lambda>(y, p). public_symbol y = p) symbol_map_entries"
  using shown.table_entries by (simp add: public_symbol_def)

lemma metadata_entry: "list_all (\<lambda>(y, m). metadata y = m) symbol_metadata_entries"
  using flags.table_entries by (simp add: metadata_def)

text \<open>The tables as one equation for each symbol.\<close>

lemma symbol_name_part_1: "list_all (\<lambda>(y, v). symbol_name y = v) ts_symbol_names_1"
  using symbol_name_entry by (simp add: symbol_name_entries_def)

lemmas symbol_name_1 [simp] = symbol_name_part_1 [unfolded ts_symbol_names_1_def entry_simps]

lemma symbol_name_part_2: "list_all (\<lambda>(y, v). symbol_name y = v) ts_symbol_names_2"
  using symbol_name_entry by (simp add: symbol_name_entries_def)

lemmas symbol_name_2 [simp] = symbol_name_part_2 [unfolded ts_symbol_names_2_def entry_simps]

lemma symbol_name_part_3: "list_all (\<lambda>(y, v). symbol_name y = v) ts_symbol_names_3"
  using symbol_name_entry by (simp add: symbol_name_entries_def)

lemmas symbol_name_3 [simp] = symbol_name_part_3 [unfolded ts_symbol_names_3_def entry_simps]

lemma symbol_name_part_4: "list_all (\<lambda>(y, v). symbol_name y = v) ts_symbol_names_4"
  using symbol_name_entry by (simp add: symbol_name_entries_def)

lemmas symbol_name_4 [simp] = symbol_name_part_4 [unfolded ts_symbol_names_4_def entry_simps]

lemma symbol_name_part_5: "list_all (\<lambda>(y, v). symbol_name y = v) ts_symbol_names_5"
  using symbol_name_entry by (simp add: symbol_name_entries_def)

lemmas symbol_name_5 [simp] = symbol_name_part_5 [unfolded ts_symbol_names_5_def entry_simps]

lemmas symbol_name_values =
  symbol_name_1 symbol_name_2 symbol_name_3 symbol_name_4 symbol_name_5

lemma public_symbol_part_1: "list_all (\<lambda>(y, v). public_symbol y = v) ts_symbol_map_1"
  using public_symbol_entry by (simp add: symbol_map_entries_def)

lemmas public_symbol_1 [simp] = public_symbol_part_1 [unfolded ts_symbol_map_1_def entry_simps]

lemma public_symbol_part_2: "list_all (\<lambda>(y, v). public_symbol y = v) ts_symbol_map_2"
  using public_symbol_entry by (simp add: symbol_map_entries_def)

lemmas public_symbol_2 [simp] = public_symbol_part_2 [unfolded ts_symbol_map_2_def entry_simps]

lemma public_symbol_part_3: "list_all (\<lambda>(y, v). public_symbol y = v) ts_symbol_map_3"
  using public_symbol_entry by (simp add: symbol_map_entries_def)

lemmas public_symbol_3 [simp] = public_symbol_part_3 [unfolded ts_symbol_map_3_def entry_simps]

lemma public_symbol_part_4: "list_all (\<lambda>(y, v). public_symbol y = v) ts_symbol_map_4"
  using public_symbol_entry by (simp add: symbol_map_entries_def)

lemmas public_symbol_4 [simp] = public_symbol_part_4 [unfolded ts_symbol_map_4_def entry_simps]

lemma public_symbol_part_5: "list_all (\<lambda>(y, v). public_symbol y = v) ts_symbol_map_5"
  using public_symbol_entry by (simp add: symbol_map_entries_def)

lemmas public_symbol_5 [simp] = public_symbol_part_5 [unfolded ts_symbol_map_5_def entry_simps]

lemmas public_symbol_values =
  public_symbol_1 public_symbol_2 public_symbol_3 public_symbol_4 public_symbol_5

lemma metadata_part_1: "list_all (\<lambda>(y, v). metadata y = v) ts_symbol_metadata_1"
  using metadata_entry by (simp add: symbol_metadata_entries_def)

lemmas metadata_1 [simp] = metadata_part_1 [unfolded ts_symbol_metadata_1_def entry_simps]

lemma metadata_part_2: "list_all (\<lambda>(y, v). metadata y = v) ts_symbol_metadata_2"
  using metadata_entry by (simp add: symbol_metadata_entries_def)

lemmas metadata_2 [simp] = metadata_part_2 [unfolded ts_symbol_metadata_2_def entry_simps]

lemma metadata_part_3: "list_all (\<lambda>(y, v). metadata y = v) ts_symbol_metadata_3"
  using metadata_entry by (simp add: symbol_metadata_entries_def)

lemmas metadata_3 [simp] = metadata_part_3 [unfolded ts_symbol_metadata_3_def entry_simps]

lemma metadata_part_4: "list_all (\<lambda>(y, v). metadata y = v) ts_symbol_metadata_4"
  using metadata_entry by (simp add: symbol_metadata_entries_def)

lemmas metadata_4 [simp] = metadata_part_4 [unfolded ts_symbol_metadata_4_def entry_simps]

lemma metadata_part_5: "list_all (\<lambda>(y, v). metadata y = v) ts_symbol_metadata_5"
  using metadata_entry by (simp add: symbol_metadata_entries_def)

lemmas metadata_5 [simp] = metadata_part_5 [unfolded ts_symbol_metadata_5_def entry_simps]

lemma metadata_part_6: "list_all (\<lambda>(y, v). metadata y = v) ts_symbol_metadata_6"
  using metadata_entry by (simp add: symbol_metadata_entries_def)

lemmas metadata_6 [simp] = metadata_part_6 [unfolded ts_symbol_metadata_6_def entry_simps]

lemma metadata_part_7: "list_all (\<lambda>(y, v). metadata y = v) ts_symbol_metadata_7"
  using metadata_entry by (simp add: symbol_metadata_entries_def)

lemmas metadata_7 [simp] = metadata_part_7 [unfolded ts_symbol_metadata_7_def entry_simps]

lemma metadata_part_8: "list_all (\<lambda>(y, v). metadata y = v) ts_symbol_metadata_8"
  using metadata_entry by (simp add: symbol_metadata_entries_def)

lemmas metadata_8 [simp] = metadata_part_8 [unfolded ts_symbol_metadata_8_def entry_simps]

lemma metadata_part_9: "list_all (\<lambda>(y, v). metadata y = v) ts_symbol_metadata_9"
  using metadata_entry by (simp add: symbol_metadata_entries_def)

lemmas metadata_9 [simp] = metadata_part_9 [unfolded ts_symbol_metadata_9_def entry_simps]

lemma metadata_part_10: "list_all (\<lambda>(y, v). metadata y = v) ts_symbol_metadata_10"
  using metadata_entry by (simp add: symbol_metadata_entries_def)

lemmas metadata_10 [simp] = metadata_part_10 [unfolded ts_symbol_metadata_10_def entry_simps]

lemma metadata_part_11: "list_all (\<lambda>(y, v). metadata y = v) ts_symbol_metadata_11"
  using metadata_entry by (simp add: symbol_metadata_entries_def)

lemmas metadata_11 [simp] = metadata_part_11 [unfolded ts_symbol_metadata_11_def entry_simps]

lemma metadata_part_12: "list_all (\<lambda>(y, v). metadata y = v) ts_symbol_metadata_12"
  using metadata_entry by (simp add: symbol_metadata_entries_def)

lemmas metadata_12 [simp] = metadata_part_12 [unfolded ts_symbol_metadata_12_def entry_simps]

lemma metadata_part_13: "list_all (\<lambda>(y, v). metadata y = v) ts_symbol_metadata_13"
  using metadata_entry by (simp add: symbol_metadata_entries_def)

lemmas metadata_13 [simp] = metadata_part_13 [unfolded ts_symbol_metadata_13_def entry_simps]

lemma metadata_part_14: "list_all (\<lambda>(y, v). metadata y = v) ts_symbol_metadata_14"
  using metadata_entry by (simp add: symbol_metadata_entries_def)

lemmas metadata_14 [simp] = metadata_part_14 [unfolded ts_symbol_metadata_14_def entry_simps]

lemma metadata_part_15: "list_all (\<lambda>(y, v). metadata y = v) ts_symbol_metadata_15"
  using metadata_entry by (simp add: symbol_metadata_entries_def)

lemmas metadata_15 [simp] = metadata_part_15 [unfolded ts_symbol_metadata_15_def entry_simps]

lemma metadata_part_16: "list_all (\<lambda>(y, v). metadata y = v) ts_symbol_metadata_16"
  using metadata_entry by (simp add: symbol_metadata_entries_def)

lemmas metadata_16 [simp] = metadata_part_16 [unfolded ts_symbol_metadata_16_def entry_simps]

lemma metadata_part_17: "list_all (\<lambda>(y, v). metadata y = v) ts_symbol_metadata_17"
  using metadata_entry by (simp add: symbol_metadata_entries_def)

lemmas metadata_17 [simp] = metadata_part_17 [unfolded ts_symbol_metadata_17_def entry_simps]

lemmas metadata_values =
  metadata_1 metadata_2 metadata_3 metadata_4 metadata_5 metadata_6 metadata_7 metadata_8
  metadata_9 metadata_10 metadata_11 metadata_12 metadata_13 metadata_14 metadata_15 metadata_16
  metadata_17

text \<open>The symbols shown for themselves, by name.\<close>

definition symbols_by_name :: "TSSymbol list" where
  "symbols_by_name =
    [anon_sym_POUND, anon_sym_PERCENT, anon_sym_AMP, anon_sym_LPAREN, anon_sym_LPAREN_RPAREN,
     anon_sym_RPAREN, anon_sym_STAR, anon_sym_STAR_STAR, anon_sym_PLUS, anon_sym_COMMA,
     anon_sym_DASH, anon_sym_DOT, anon_sym_DOT_DOT, anon_sym_DOT_DOT_DOT, anon_sym_SLASH,
     anon_sym_0, anon_sym_1, anon_sym_COLON, anon_sym_COLON_EQ, anon_sym_SEMI, anon_sym_LT,
     anon_sym_LT_EQ, anon_sym_LT_GT, anon_sym_EQ, anon_sym_EQ_GT, anon_sym_GT, anon_sym_GT_EQ,
     aux_sym_fb_decl_token3, aux_sym_action_token1, aux_sym_and_operator_token1,
     aux_sym_array_type_spec_token1, aux_sym_relative_located_at_token1,
     aux_sym_bool_literal_with_string_token1, aux_sym_for_list_token1, aux_sym_case_stmt_token1,
     aux_sym_char_name_token1, aux_sym_class_decl_token1, aux_sym_config_decl_token1,
     aux_sym_ERR_doubled_retain_token1, aux_sym__stmt_token3, anon_sym_D, aux_sym_for_stmt_token2,
     aux_sym_action_qualifier_token2, aux_sym_if_stmt_token3, aux_sym_else_if_stmt_token1,
     aux_sym_action_token2, aux_sym_case_stmt_token2, aux_sym_class_decl_token2,
     aux_sym_config_decl_token2, aux_sym_for_stmt_token3, aux_sym_func_decl_token2,
     aux_sym_fb_decl_token4, aux_sym_if_stmt_token4, aux_sym_interface_decl_token2,
     aux_sym_method_decl_token3, aux_sym_namespace_decl_token2, aux_sym_prog_decl_token2,
     aux_sym_repeat_stmt_token3, aux_sym_resource_decl_token3, aux_sym_initial_step_token2,
     aux_sym_struct_type_spec_token3, aux_sym_transition_token5, aux_sym_data_type_decl_token2,
     aux_sym_input_decls_token2, aux_sym_while_stmt_token2, sym_ERR_access_spec_in_method_prototype,
     sym_ERR_assign_func_call, sym_ERR_assign_in_condition, sym_ERR_class_variables_after_method,
     aux_sym_ERR_class_variables_after_method_repeat1, sym_ERR_clause_outside_try,
     sym_ERR_config_entry_with_no_spec, sym_ERR_config_not_allowed_in_namespace,
     sym_ERR_doubled_constant, sym_ERR_doubled_global_qualifier, sym_ERR_doubled_non_retain,
     sym_ERR_doubled_qualifier, aux_sym_ERR_doubled_qualifier_repeat1, sym_ERR_doubled_retain,
     aux_sym_ERR_doubled_retain_repeat1, sym_ERR_empty_right_hand_assignment,
     sym_ERR_end_try_spelling, sym_ERR_extends_multiple_times, sym_ERR_fb_variables_after_method,
     aux_sym_ERR_fb_variables_after_method_repeat1, sym_ERR_func_call_in_init,
     sym_ERR_implements_before_extends, sym_ERR_implements_multiple_times,
     sym_ERR_interval_after_priority, sym_ERR_invalid_edge_qualifier,
     aux_sym_ERR_invalid_edge_qualifier_token1, sym_ERR_method_decl_in_body,
     sym_ERR_missing_dot_in_assignment, sym_ERR_missing_dot_in_for_control,
     sym_ERR_missing_equal_in_assignment, sym_ERR_missing_equal_in_for_control,
     sym_ERR_output_assign_in_assignment, sym_ERR_output_assign_in_for_control,
     sym_ERR_program_not_allowed_in_namespace, sym_ERR_single_after_interval,
     sym_ERR_single_after_priorty, sym_ERR_task_or_program_outside_resource,
     sym_ERR_unexpected_super_in_path, sym_ERR_unexpected_this_in_path,
     sym_ERR_var_access_not_allowed, sym_ERR_var_config_not_allowed,
     sym_ERR_var_external_not_allowed, sym_ERR_var_global_not_allowed,
     sym_ERR_var_in_out_not_allowed, sym_ERR_var_not_allowed, sym_ERR_var_temp_not_allowed,
     sym_ERR_variable_with_no_spec, sym_ERR_variadic_fb_input, aux_sym__stmt_token2,
     aux_sym_ERR_extends_multiple_times_token1, aux_sym_bool_literal_with_string_token3,
     aux_sym_fb_decl_token2, aux_sym_for_stmt_token1, aux_sym_transition_token3,
     aux_sym_func_decl_token1, aux_sym_fb_decl_token1, aux_sym_edge_decl_token2, anon_sym_I,
     aux_sym_if_stmt_token1, aux_sym_ERR_implements_before_extends_token1,
     aux_sym_initial_step_token1, aux_sym_interface_decl_token1, aux_sym_access_spec_token4,
     aux_sym_ERR_interval_after_priority_token1, sym_IQM, anon_sym_L, anon_sym_M,
     aux_sym_method_decl_token1, aux_sym_mult_token1, anon_sym_N, aux_sym_namespace_decl_token1,
     aux_sym_ERR_doubled_qualifier_token2, aux_sym_unary_token1, aux_sym_array_type_spec_token2,
     aux_sym_resource_decl_token2, aux_sym_or_operator_token1, aux_sym_struct_type_spec_token2,
     aux_sym_method_decl_token2, anon_sym_P, aux_sym_transition_token2, aux_sym_prog_decl_token1,
     anon_sym_Q, anon_sym_R, aux_sym_ref_addr_token1, aux_sym_ref_type_spec_token1,
     aux_sym_repeat_stmt_token1, aux_sym_resource_decl_token1, aux_sym_ERR_doubled_qualifier_token1,
     aux_sym__stmt_token1, aux_sym_edge_decl_token1, anon_sym_S, aux_sym_action_qualifier_token1,
     sym_SFC, sym_SFC_network, aux_sym_SFC_network_repeat1, aux_sym_SFC_repeat1,
     aux_sym_ERR_single_after_interval_token1, aux_sym_action_qualifier_token3, aux_sym_step_token1,
     aux_sym_string_name_token1, aux_sym_struct_type_spec_token1,
     aux_sym_ERR_unexpected_super_in_path_token1, aux_sym_task_config_token1,
     aux_sym_if_stmt_token2, aux_sym_ERR_unexpected_this_in_path_token1, aux_sym_transition_token4,
     aux_sym_transition_token1, aux_sym_bool_literal_with_string_token2,
     aux_sym_data_type_decl_token1, aux_sym_repeat_stmt_token2, aux_sym_using_directive_token1,
     aux_sym_var_decls_token1, aux_sym_prog_access_decls_token1, aux_sym_config_init_token1,
     aux_sym_external_var_decls_token1, aux_sym_global_var_decls_token1, aux_sym_input_decls_token1,
     aux_sym_in_out_decls_token1, aux_sym_output_decls_token1, aux_sym_temp_var_decls_token1,
     aux_sym_while_stmt_token1, aux_sym_prog_config_token1, aux_sym_xor_operator_token1,
     anon_sym_LBRACK, anon_sym_RBRACK, aux_sym_catch_clause_token1,
     aux_sym_ERR_end_try_spelling_token1, aux_sym_try_stmt_token2, aux_sym_finally_clause_token1,
     aux_sym_raise_stmt_token1, aux_sym_try_stmt_token1, sym__array_item, sym__class_variables,
     sym__config_variables, sym__elem_type_name, sym__element_value, sym__explicit_signed_int,
     sym__explicit_signed_real, sym__expression, sym__external_var_kind, sym__fb_input_var_kind,
     sym__fb_output_var_kind, sym__fb_variables, sym__func_variables, sym__global_var_kind,
     sym__in_out_var_kind, sym__input_var_kind, sym__method_decl_variables,
     sym__method_prot_variables, sym__output_var_kind, sym__path, sym__primary_expression,
     sym__stmt, sym__temp_var_kind, sym_access_decl, sym_access_decls, aux_sym_access_decls_repeat1,
     sym_access_direction, sym_access_path, sym_access_spec, sym_action, sym_action_association,
     aux_sym_action_association_repeat1, sym_action_name, sym_action_qualifier, sym_action_time,
     sym_add, sym_add_operator, sym_adress_identifier, anon_sym_allow, sym_allow_pragma,
     aux_sym_allow_pragma_repeat1, sym_and_operator, sym_any_invocation, sym_any_invocation_kind,
     sym_array_conformand, aux_sym_array_conformand_repeat1, sym_array_index_elem, sym_array_init,
     sym_array_type_init, aux_sym_array_type_init_repeat1, sym_array_type_spec, sym_array_values,
     sym_assign, sym_assignment, sym_begin_path_expression, sym_binary_int, sym_bit_str_type_name,
     sym_bool_literal, sym_bool_literal_with_numeric, sym_bool_literal_with_string,
     aux_sym_bit_str_type_name_token1, sym_boolean_operator, aux_sym_multibits_type_name_token1,
     sym_c_style_comment, sym_case_list, sym_case_list_elem, aux_sym_case_list_repeat1,
     sym_case_selection, sym_case_stmt, aux_sym_case_stmt_repeat1, sym_catch_clause,
     sym_char_literal, sym_char_name, sym_char_str, sym_class_decl, sym_comparison_operator,
     sym_config_decl, aux_sym_config_decl_repeat1, sym_config_init, aux_sym_config_init_repeat1,
     sym_config_inst_init, sym_conformand_dimension, sym_constant, sym_constant_expr,
     sym_d_byte_char_str, sym_data_sink, sym_data_source, sym_data_type_access, sym_data_type_decl,
     aux_sym_data_type_decl_repeat1, sym_date, sym_date_and_daytime, sym_date_and_time,
     aux_sym_short_date_and_time_token1, sym_date_literal, aux_sym_date_literal_token1,
     sym_date_type_name, sym_daytime, sym_deref_expression, aux_sym_deref_expression_repeat1,
     anon_sym_CARET, alias_sym_deref_sign, aux_sym_sign_int_type_name_token3, sym_direct_variable,
     sym_dt_type_name, sym_duration, aux_sym_multibits_type_name_token3, sym_edge_decl,
     sym_element_at, sym_else_if_stmt, ts_builtin_sym_end, sym_enum_spec, aux_sym_enum_spec_repeat1,
     sym_enum_type_spec, sym_enum_value, sym_enum_value_spec, sym_eq, sym_eq_operator,
     sym_export_pragma, aux_sym_export_pragma_token1, anon_sym_extern, sym_extern_param_list,
     aux_sym_extern_param_list_repeat1, sym_extern_pragma, sym_extern_result, sym_external_decl,
     sym_external_var_decls, aux_sym_external_var_decls_repeat1, sym_fb_body, sym_fb_decl,
     aux_sym_fb_decl_repeat1, aux_sym_fb_decl_repeat2, aux_sym_fb_decl_repeat3, sym_fb_diagram,
     aux_sym_fb_diagram_repeat1, sym_fb_input_decls, aux_sym_fb_input_decls_repeat1,
     sym_fb_input_var, sym_fb_output_decls, aux_sym_fb_output_decls_repeat1, sym_fb_output_var,
     sym_fb_task, sym_fbd_network, alias_sym_field, sym_field_expression, sym_finally_clause,
     alias_sym_fold_and, alias_sym_fold_div, alias_sym_fold_eq, sym_fold_expression,
     alias_sym_fold_ge, alias_sym_fold_gt, alias_sym_fold_le, alias_sym_fold_lt,
     aux_sym_fold_operator_token2, aux_sym_fold_operator_token1, alias_sym_fold_minus,
     alias_sym_fold_mod, alias_sym_fold_mul, alias_sym_fold_ne, sym_fold_operator, anon_sym_PIPE,
     alias_sym_fold_plus, alias_sym_fold_power, alias_sym_fold_xor, sym_for_list, sym_for_stmt,
     sym_func_body, sym_func_call, aux_sym_func_call_repeat1, sym_func_decl,
     aux_sym_func_decl_repeat1, aux_sym_func_decl_repeat2, aux_sym_func_decl_repeat3,
     sym_global_var_decl, sym_global_var_decls, aux_sym_global_var_decls_repeat1,
     sym_global_var_spec, aux_sym_global_var_spec_repeat1, sym_hex_int, sym_identifier, sym_if_stmt,
     aux_sym_if_stmt_repeat1, sym_in_out_decls, aux_sym_in_out_decls_repeat1, sym_in_out_var,
     sym_index_expression, sym_index_value, aux_sym_index_value_repeat1, anon_sym_info,
     sym_init_elem, sym_initial_step, aux_sym_initial_step_repeat1, sym_input_decls,
     aux_sym_input_decls_repeat1, sym_input_var, sym_int_kind, sym_int_literal,
     aux_sym_sign_int_type_name_token2, sym_int_type_name, sym_interface_decl,
     aux_sym_interface_decl_repeat1, sym_interface_name_list, aux_sym_interface_name_list_repeat1,
     alias_sym_internal, sym_invocation, aux_sym_long_date_and_time_token1, sym_l_date_type_name,
     sym_l_dt_type_name, sym_l_time_type_name, sym_ladder_diagram, aux_sym_ladder_diagram_repeat1,
     sym_ld_rung, sym_line_comment, aux_sym_sign_int_type_name_token4, sym_loc_partly_var,
     sym_loc_partly_var_decl, aux_sym_loc_partly_var_decl_repeat1, sym_loc_var_decl,
     sym_loc_var_spec_init, sym_located_at, sym_long_date, sym_long_date_and_time,
     aux_sym_real_type_name_token2, sym_ltime, sym_ltod, sym_ltod_type_name,
     aux_sym_multibits_type_name_token4, sym_method_decl, aux_sym_method_decl_repeat1,
     sym_method_prototype, aux_sym_method_prototype_repeat1, sym_mult, sym_mult_operator,
     sym_multibit, sym_multibit_part_access, sym_multibits_type_name, sym_must_call_pragma,
     aux_sym_must_call_pragma_token1, sym_namespace_access, sym_namespace_decl,
     sym_namespace_elements, aux_sym_namespace_elements_repeat1, sym_namespace_h_name,
     aux_sym_namespace_h_name_repeat1, sym_no_retain_var_decls, aux_sym_ref_value_token1,
     sym_numeric_literal, sym_numeric_type_name, sym_octal_int, sym_offset, sym_once_pragma,
     aux_sym_once_pragma_token1, sym_or_operator, sym_ord, sym_ord_operator, sym_output_decls,
     aux_sym_output_decls_repeat1, sym_output_var, sym_pack_element, sym_param_assign,
     sym_param_assign_input, sym_param_assign_output, anon_sym_params, sym_parenthesized_expression,
     alias_sym_partly, sym_pascal_style_comment, sym_path_expression, sym_pou_pragma,
     sym_power_operator, sym_pragma, sym_pragma_string, aux_sym_access_spec_token3,
     sym_prog_access_decl, sym_prog_access_decls, aux_sym_prog_access_decls_repeat1, sym_prog_cnxn,
     sym_prog_conf_elem, sym_prog_conf_elems, aux_sym_prog_conf_elems_repeat1, sym_prog_config,
     sym_prog_data_source, sym_prog_decl, aux_sym_prog_decl_repeat1, aux_sym_access_spec_token2,
     aux_sym_access_spec_token1, sym_raise_stmt, sym_ranges, aux_sym_ranges_repeat1,
     aux_sym_access_direction_token2, aux_sym_access_direction_token1, sym_real_literal,
     aux_sym_real_type_name_token1, sym_real_type_name, sym_real_value, sym_ref_addr, sym_ref_spec,
     alias_sym_ref_to, sym_ref_type_spec, aux_sym_ref_type_spec_repeat1, sym_ref_value,
     sym_relative_direct_variable, sym_relative_located_at, sym_relative_offset,
     aux_sym_relative_offset_repeat1, sym_repeat_stmt, sym_repeat_values, sym_resource_decl,
     aux_sym_resource_decl_repeat1, anon_sym_result, sym_retain_var_decls, sym_s_byte_char_str,
     sym_scoped_identifier, sym_short_date, sym_short_date_and_time, sym_sign_int_type_name,
     sym_signed_int, sym_signed_real_value, sym_simple_type_init, sym_simple_type_spec,
     sym_single_resource_decl, aux_sym_sign_int_type_name_token1, sym_source_file,
     aux_sym_source_file_repeat1, sym_step, sym_step_name, sym_steps, aux_sym_steps_repeat1,
     sym_stmt_list, aux_sym_stmt_list_repeat1, sym_string_name, sym_string_type_name,
     sym_struct_elem, sym_struct_elem_decl, sym_struct_elem_decl_attributes, sym_struct_init,
     aux_sym_struct_init_repeat1, sym_struct_type_init, aux_sym_struct_type_init_repeat1,
     sym_struct_type_spec, aux_sym_struct_type_spec_repeat1, sym_subrange, sym_subrange_type_spec,
     sym_super_body_invocation, sym_super_invocation, alias_sym_target, sym_task_config,
     sym_task_init, sym_temp_var, sym_temp_var_decls, aux_sym_temp_var_decls_repeat1,
     sym_test_pragma, aux_sym_test_pragma_token1, sym_this_invocation, sym_time, sym_time_literal,
     sym_time_of_day, sym_time_type_name, sym_time_value, sym_tod, sym_tod_type_name,
     sym_transition, sym_transition_cond, sym_transition_name, sym_try_stmt,
     aux_sym_try_stmt_repeat1, sym_type_decl, aux_sym_unsign_int_type_name_token3,
     aux_sym_unsign_int_type_name_token2, aux_sym_unsign_int_type_name_token4, sym_unary,
     sym_unary_operator, sym_unsign_int_type_name, sym_unsigned_int, sym_using_directive,
     aux_sym_using_directive_repeat1, aux_sym_unsign_int_type_name_token1, sym_var_access,
     sym_var_decl, sym_var_decl_init, sym_var_decl_init_list, sym_var_decls,
     aux_sym_var_decls_repeat1, sym_var_spec, sym_variable, sym_variable_access, sym_variable_list,
     aux_sym_variable_list_repeat1, sym_variadic_decl, anon_sym_warn, sym_warn_pragma,
     sym_warn_pragma_level, anon_sym_wasm, sym_wasm_pragma, sym_while_stmt,
     aux_sym_multibits_type_name_token2, sym_xor_operator, anon_sym_LBRACE, anon_sym_RBRACE]"

lemma not_shown:
  "sym_time_type_name \<noteq> aux_sym_time_token1"
  "sym_l_time_type_name \<noteq> aux_sym_ltime_token1"
  "sym_tod_type_name \<noteq> aux_sym_tod_token1"
  "sym_ltod_type_name \<noteq> aux_sym_ltod_token1"
  "sym_date_type_name \<noteq> aux_sym_short_date_token1"
  "sym_date_type_name \<noteq> aux_sym_long_date_token1"
  "anon_sym_DASH \<noteq> sym__minus_before_base"
  "anon_sym_PLUS \<noteq> sym__plus_before_base"
  "sym_stmt_list \<noteq> sym_case_body"
  by (simp_all add: symbol_numbers)

definition symbols :: "TSSymbol list" where
  "symbols = map fst symbol_name_entries"

lemma symbols_upt: "symbols = [0..<604]"
  using symbol_names_increasing increasing_dense[of 0 symbol_name_entries] by (simp add: symbols_def)

lemma every_symbol: "(\<forall>y < 604. P y) \<longleftrightarrow> list_all P symbols"
  by (auto simp: symbols_upt list_all_iff)

lemmas symbols_value =
  symbols_def [unfolded symbol_name_entries_def ts_symbol_names_parts append.simps list.map fst_conv]

section \<open>Names\<close>

lemma public_symbol_keeps:
  "list_all (\<lambda>y. symbol_name (public_symbol y) = symbol_name y \<and>
     metadata (public_symbol y) = metadata y \<and> public_symbol (public_symbol y) = public_symbol y) symbols"
  unfolding symbols_value by (simp cong: list_all_weak)

lemma replaced_symbols: "filter (\<lambda>y. public_symbol y \<noteq> y) symbols =
    [aux_sym_time_token1, aux_sym_ltime_token1, aux_sym_tod_token1, aux_sym_ltod_token1,
     aux_sym_short_date_token1, aux_sym_long_date_token1, sym__minus_before_base,
     sym__plus_before_base, sym_case_body]"
  by (simp add: symbols_value not_shown)

lemma length_symbols: "length symbols = 604"
  by (simp add: symbols_def symbol_names_increasing)

lemma shown_count: "length (filter (\<lambda>y. public_symbol y = y) symbols) = 595"
  using sum_length_filter_compl[of "\<lambda>y. public_symbol y = y" symbols]
  by (simp add: replaced_symbols length_symbols)

lemma by_name_shown: "list_all (\<lambda>y. public_symbol y = y) symbols_by_name"
  unfolding symbols_by_name_def by (simp cong: list_all_weak)

lemma by_name_symbols: "list_all (\<lambda>y. y < 604) symbols_by_name \<and> length symbols_by_name = 595"
  unfolding symbols_by_name_def by (simp add: symbol_numbers cong: list_all_weak)

text \<open>The order of two names, decided at the first character in which they differ.\<close>

fun name_before :: "string \<Rightarrow> string \<Rightarrow> bool" where
  "name_before [] ds = (ds \<noteq> [])"
| "name_before (c # cs) [] = False"
| "name_before (c # cs) (d # ds) = (if c = d then name_before cs ds else code c < code d)"

lemma name_before_less: "name_before cs ds \<longleftrightarrow> map code cs < map code ds"
proof (induction cs ds rule: name_before.induct)
  case (1 ds)
  then show ?case by (cases ds) simp_all
qed auto

lemma by_name_sorted: "successively (\<lambda>x y. name_before (symbol_name x) (symbol_name y)) symbols_by_name"
  unfolding symbols_by_name_def by (simp add: char_simps cong: successively_weak)


lemma by_name_distinct: "distinct (map symbol_name symbols_by_name)"
proof -
  let ?key = "\<lambda>y. map code (symbol_name y)"
  have "sorted_wrt (\<lambda>x y. ?key x < ?key y) symbols_by_name"
    using by_name_sorted unfolding name_before_less
    by (subst (asm) successively_conv_sorted_wrt) (auto intro: transpI)
  then have "sorted_wrt (<) (map ?key symbols_by_name)"
    by (simp add: sorted_wrt_map)
  then have "distinct (map ?key symbols_by_name)"
    unfolding strict_sorted_iff by blast
  moreover have "map ?key symbols_by_name = map (map code) (map symbol_name symbols_by_name)"
    by simp
  ultimately show ?thesis
    by (metis distinct_map)
qed

lemma shown_symbols: "set symbols_by_name = {y. y < 604 \<and> public_symbol y = y}"
proof (rule card_subset_eq)
  show "set symbols_by_name \<subseteq> {y. y < 604 \<and> public_symbol y = y}"
    using by_name_shown by_name_symbols by (auto simp: list_all_iff)
  have "{y. y < 604 \<and> public_symbol y = y} = set (filter (\<lambda>y. public_symbol y = y) symbols)"
    by (auto simp: symbols_upt)
  moreover have "distinct (filter (\<lambda>y. public_symbol y = y) symbols)"
    by (simp add: symbols_upt)
  ultimately show "card (set symbols_by_name) = card {y. y < 604 \<and> public_symbol y = y}"
    using shown_count by_name_symbols by_name_distinct
    by (simp only: distinct_card distinct_map)
qed simp

lemma public_symbol_less:
  assumes "y < 604"
  shows "public_symbol y < 604"
proof -
  have "list_all (\<lambda>(y, p). p < 604) symbol_map_entries"
    unfolding symbol_map_entries_def ts_symbol_map_parts list_all_append
    by (simp add: symbol_numbers cong: list_all_weak)
  then show ?thesis
    using shown.table_dense[of "\<lambda>y p. p < 604"] symbol_map_increasing assms
    by (simp add: public_symbol_def)
qed

text \<open>
  C27. Two symbols of the language are shown as the same symbol exactly when they have the same name, and
  the symbol shown in place of another has its name and its flags: a name stands for one kind of node.
\<close>

theorem symbols_named_apart:
  assumes "x < SYMBOL_COUNT + ALIAS_COUNT" and "y < SYMBOL_COUNT + ALIAS_COUNT"
  shows "(public_symbol x = public_symbol y \<longleftrightarrow> symbol_name x = symbol_name y) \<and>
    public_symbol (public_symbol x) = public_symbol x \<and>
    symbol_name (public_symbol x) = symbol_name x \<and> metadata (public_symbol x) = metadata x"
proof -
  note keeps = public_symbol_keeps[folded every_symbol, rule_format]
  have less: "x < 604" "y < 604"
    using assms by (simp_all add: SYMBOL_COUNT_def ALIAS_COUNT_def)
  have "public_symbol x = public_symbol y" if "symbol_name x = symbol_name y"
  proof -
    have "public_symbol x \<in> set symbols_by_name" "public_symbol y \<in> set symbols_by_name"
      using less keeps public_symbol_less by (simp_all add: shown_symbols)
    with that by_name_distinct keeps less show ?thesis
      by (metis distinct_map inj_onD)
  qed
  then show ?thesis
    using keeps less by metis
qed

theorem symbols_named_apart_witness:
  "public_symbol aux_sym_time_token1 = public_symbol sym_time_type_name"
proof -
  have "aux_sym_time_token1 < SYMBOL_COUNT + ALIAS_COUNT" "sym_time_type_name < SYMBOL_COUNT + ALIAS_COUNT"
    by (simp_all add: symbol_numbers SYMBOL_COUNT_def ALIAS_COUNT_def)
  from symbols_named_apart[OF this] show ?thesis
    by simp
qed

end
