(* ===== verification/Supertypes.thy ===== *)
theory Supertypes
  imports Symbol_Properties
begin

text \<open>
  The supertypes of the language: hidden symbols that stand for one of several others. The tables
  \<open>ts_supertype_symbols\<close>, \<open>ts_supertype_map_slices\<close> and \<open>ts_supertype_map_entries\<close> list the subtypes
  of each.
\<close>

lemma supertype_slices_size:
  "ts_supertype_map_slices = designated 481 (Slice 0 0) supertype_slice_entries"
  by (simp add: ts_supertype_map_slices_def designated_unsized_def supertype_slice_entries_def symbol_numbers)

lemma supertype_slices:
  "list_all (\<lambda>(y, s). ts_supertype_map_slices ! y = s) supertype_slice_entries"
  unfolding supertype_slices_size
  by (rule designated_entries) (simp_all add: supertype_slice_entries_def symbol_numbers)

interpretation super_entries: run_table 0 supertype_runs ts_supertype_map_entries
  by unfold_locales
    (simp_all add: ts_supertype_map_entries_def supertype_runs_def ts_supertype_map_entries_parts)

definition subtypes :: "TSSymbol \<Rightarrow> TSSymbol list" where
  "subtypes y = slice_of ts_supertype_map_entries (ts_supertype_map_slices ! y)"

lemmas supertype_slice_values =
  supertype_slices [unfolded supertype_slice_entries_def entry_simps]

lemma supertype_run_1:
  "list_all (\<lambda>(i, vs). slice_of ts_supertype_map_entries (Slice i (run_length vs)) = vs)
     ts_supertype_map_entries_1"
  "list_all (\<lambda>(i, vs). slice_of ts_supertype_map_entries (Slice i (run_length vs)) = vs)
     ts_supertype_map_entries_2"
  using super_entries.table_slices by (simp_all add: supertype_runs_def)

lemmas supertype_run_values =
  supertype_run_1(1) [unfolded ts_supertype_map_entries_1_def entry_simps run_length_simps]
  supertype_run_1(2) [unfolded ts_supertype_map_entries_2_def entry_simps run_length_simps]

lemmas subtypes_simps = subtypes_def supertype_slice_values supertype_run_values

lemma supertypes_flagged:
  "list_all (\<lambda>y. supertype (metadata y) \<longrightarrow> y \<in> set ts_supertype_symbols) symbols"
  "list_all (\<lambda>y. supertype (metadata y)) ts_supertype_symbols"
  "list_all (\<lambda>y. y < 604) ts_supertype_symbols"
  unfolding symbols_value ts_supertype_symbols_def
  by (simp_all cong: list_all_weak) (simp add: symbol_numbers)

text \<open>Whether a symbol is in the tree itself, or stands for ones that are.\<close>

definition shown_or_replaced :: "TSSymbol \<Rightarrow> bool" where
  "shown_or_replaced y \<longleftrightarrow>
     (if visible (metadata y) then True
      else supertype (metadata y) \<and> list_all (\<lambda>z. visible (metadata z)) (subtypes y))"

lemma subtypes_shown:
  "list_all (\<lambda>y. \<not> visible (metadata y) \<and> subtypes y \<noteq> [] \<and> list_all shown_or_replaced (subtypes y))
     ts_supertype_symbols"
  by (simp add: ts_supertype_symbols_def subtypes_simps shown_or_replaced_def)

text \<open>
  C28. The supertypes are the symbols whose metadata says so, each hidden and with subtypes; every
  subtype is shown in the tree, or is a supertype whose subtypes are all shown, so that looking for the
  node of a supertype ends after two steps at the latest.
\<close>

theorem supertypes_resolved:
  "set ts_supertype_symbols = {y. y < SYMBOL_COUNT + ALIAS_COUNT \<and> supertype (metadata y)} \<and>
   length ts_supertype_symbols = SUPERTYPE_COUNT \<and>
   list_all (\<lambda>y. \<not> visible (metadata y) \<and> subtypes y \<noteq> [] \<and>
     list_all (\<lambda>x. visible (metadata x) \<or>
       supertype (metadata x) \<and> list_all (\<lambda>z. visible (metadata z)) (subtypes x)) (subtypes y))
     ts_supertype_symbols"
proof -
  have "set ts_supertype_symbols = {y. y < 604 \<and> supertype (metadata y)}"
    using supertypes_flagged by (auto simp: symbols_upt list_all_iff)
  moreover have "length ts_supertype_symbols = 24"
    by (simp add: ts_supertype_symbols_def)
  moreover have "shown_or_replaced = (\<lambda>x. visible (metadata x) \<or>
      supertype (metadata x) \<and> list_all (\<lambda>z. visible (metadata z)) (subtypes x))"
    by (simp add: shown_or_replaced_def fun_eq_iff)
  ultimately show ?thesis
    using subtypes_shown by (simp add: SYMBOL_COUNT_def ALIAS_COUNT_def SUPERTYPE_COUNT_def)
qed

end
