(* ===== verification/Primary_Correct.thy ===== *)
theory Primary_Correct
  imports Primary_States
begin

text \<open>
  The states of the parser with the same items: each is represented by the first of them, which
  represents itself.
\<close>

definition primary_at :: "nat \<Rightarrow> TSStateId \<Rightarrow> bool" where
  "primary_at p q \<longleftrightarrow> ts_primary_state_ids ! p = q"

lemma primary_entries: "list_all (\<lambda>(p, q). primary_at p q) (numbered 0 ts_primary_state_ids)"
  using numbered_nth by (simp add: primary_at_def)

text \<open>The table in parts, and each as one fact for each state.\<close>

lemma primary_lengths:
  "length ts_primary_state_ids_1 = 150"
  "length ts_primary_state_ids_2 = 150"
  "length ts_primary_state_ids_3 = 150"
  "length ts_primary_state_ids_4 = 150"
  "length ts_primary_state_ids_5 = 150"
  "length ts_primary_state_ids_6 = 150"
  "length ts_primary_state_ids_7 = 150"
  "length ts_primary_state_ids_8 = 150"
  "length ts_primary_state_ids_9 = 150"
  "length ts_primary_state_ids_10 = 150"
  "length ts_primary_state_ids_11 = 150"
  "length ts_primary_state_ids_12 = 150"
  "length ts_primary_state_ids_13 = 150"
  "length ts_primary_state_ids_14 = 150"
  "length ts_primary_state_ids_15 = 150"
  "length ts_primary_state_ids_16 = 150"
  "length ts_primary_state_ids_17 = 150"
  "length ts_primary_state_ids_18 = 150"
  "length ts_primary_state_ids_19 = 150"
  "length ts_primary_state_ids_20 = 150"
  "length ts_primary_state_ids_21 = 150"
  "length ts_primary_state_ids_22 = 150"
  "length ts_primary_state_ids_23 = 150"
  "length ts_primary_state_ids_24 = 150"
  "length ts_primary_state_ids_25 = 150"
  "length ts_primary_state_ids_26 = 150"
  "length ts_primary_state_ids_27 = 150"
  "length ts_primary_state_ids_28 = 150"
  "length ts_primary_state_ids_29 = 150"
  "length ts_primary_state_ids_30 = 150"
  "length ts_primary_state_ids_31 = 150"
  "length ts_primary_state_ids_32 = 150"
  "length ts_primary_state_ids_33 = 150"
  "length ts_primary_state_ids_34 = 150"
  "length ts_primary_state_ids_35 = 150"
  "length ts_primary_state_ids_36 = 150"
  "length ts_primary_state_ids_37 = 150"
  "length ts_primary_state_ids_38 = 150"
  "length ts_primary_state_ids_39 = 150"
  "length ts_primary_state_ids_40 = 150"
  "length ts_primary_state_ids_41 = 150"
  "length ts_primary_state_ids_42 = 150"
  "length ts_primary_state_ids_43 = 150"
  "length ts_primary_state_ids_44 = 150"
  "length ts_primary_state_ids_45 = 150"
  "length ts_primary_state_ids_46 = 150"
  "length ts_primary_state_ids_47 = 150"
  "length ts_primary_state_ids_48 = 150"
  "length ts_primary_state_ids_49 = 150"
  "length ts_primary_state_ids_50 = 150"
  "length ts_primary_state_ids_51 = 150"
  "length ts_primary_state_ids_52 = 150"
  "length ts_primary_state_ids_53 = 150"
  "length ts_primary_state_ids_54 = 150"
  "length ts_primary_state_ids_55 = 150"
  "length ts_primary_state_ids_56 = 150"
  "length ts_primary_state_ids_57 = 150"
  "length ts_primary_state_ids_58 = 150"
  "length ts_primary_state_ids_59 = 150"
  "length ts_primary_state_ids_60 = 150"
  "length ts_primary_state_ids_61 = 150"
  "length ts_primary_state_ids_62 = 150"
  "length ts_primary_state_ids_63 = 150"
  "length ts_primary_state_ids_64 = 150"
  "length ts_primary_state_ids_65 = 150"
  "length ts_primary_state_ids_66 = 150"
  "length ts_primary_state_ids_67 = 150"
  "length ts_primary_state_ids_68 = 150"
  "length ts_primary_state_ids_69 = 150"
  "length ts_primary_state_ids_70 = 150"
  "length ts_primary_state_ids_71 = 45"
  by (simp_all add:
      ts_primary_state_ids_1_def ts_primary_state_ids_2_def ts_primary_state_ids_3_def
      ts_primary_state_ids_4_def ts_primary_state_ids_5_def ts_primary_state_ids_6_def
      ts_primary_state_ids_7_def ts_primary_state_ids_8_def ts_primary_state_ids_9_def
      ts_primary_state_ids_10_def ts_primary_state_ids_11_def ts_primary_state_ids_12_def
      ts_primary_state_ids_13_def ts_primary_state_ids_14_def ts_primary_state_ids_15_def
      ts_primary_state_ids_16_def ts_primary_state_ids_17_def ts_primary_state_ids_18_def
      ts_primary_state_ids_19_def ts_primary_state_ids_20_def ts_primary_state_ids_21_def
      ts_primary_state_ids_22_def ts_primary_state_ids_23_def ts_primary_state_ids_24_def
      ts_primary_state_ids_25_def ts_primary_state_ids_26_def ts_primary_state_ids_27_def
      ts_primary_state_ids_28_def ts_primary_state_ids_29_def ts_primary_state_ids_30_def
      ts_primary_state_ids_31_def ts_primary_state_ids_32_def ts_primary_state_ids_33_def
      ts_primary_state_ids_34_def ts_primary_state_ids_35_def ts_primary_state_ids_36_def
      ts_primary_state_ids_37_def ts_primary_state_ids_38_def ts_primary_state_ids_39_def
      ts_primary_state_ids_40_def ts_primary_state_ids_41_def ts_primary_state_ids_42_def
      ts_primary_state_ids_43_def ts_primary_state_ids_44_def ts_primary_state_ids_45_def
      ts_primary_state_ids_46_def ts_primary_state_ids_47_def ts_primary_state_ids_48_def
      ts_primary_state_ids_49_def ts_primary_state_ids_50_def ts_primary_state_ids_51_def
      ts_primary_state_ids_52_def ts_primary_state_ids_53_def ts_primary_state_ids_54_def
      ts_primary_state_ids_55_def ts_primary_state_ids_56_def ts_primary_state_ids_57_def
      ts_primary_state_ids_58_def ts_primary_state_ids_59_def ts_primary_state_ids_60_def
      ts_primary_state_ids_61_def ts_primary_state_ids_62_def ts_primary_state_ids_63_def
      ts_primary_state_ids_64_def ts_primary_state_ids_65_def ts_primary_state_ids_66_def
      ts_primary_state_ids_67_def ts_primary_state_ids_68_def ts_primary_state_ids_69_def
      ts_primary_state_ids_70_def ts_primary_state_ids_71_def)

lemmas primary_whole =
  primary_entries [unfolded ts_primary_state_ids_def, simplified numbered_append primary_lengths list_all_append add_0_left arith_simps]

lemma primary_parts:
  "list_all (\<lambda>(p, q). primary_at p q) (numbered 0 ts_primary_state_ids_1)"
  "list_all (\<lambda>(p, q). primary_at p q) (numbered 150 ts_primary_state_ids_2)"
  "list_all (\<lambda>(p, q). primary_at p q) (numbered 300 ts_primary_state_ids_3)"
  "list_all (\<lambda>(p, q). primary_at p q) (numbered 450 ts_primary_state_ids_4)"
  "list_all (\<lambda>(p, q). primary_at p q) (numbered 600 ts_primary_state_ids_5)"
  "list_all (\<lambda>(p, q). primary_at p q) (numbered 750 ts_primary_state_ids_6)"
  "list_all (\<lambda>(p, q). primary_at p q) (numbered 900 ts_primary_state_ids_7)"
  "list_all (\<lambda>(p, q). primary_at p q) (numbered 1050 ts_primary_state_ids_8)"
  "list_all (\<lambda>(p, q). primary_at p q) (numbered 1200 ts_primary_state_ids_9)"
  "list_all (\<lambda>(p, q). primary_at p q) (numbered 1350 ts_primary_state_ids_10)"
  "list_all (\<lambda>(p, q). primary_at p q) (numbered 1500 ts_primary_state_ids_11)"
  "list_all (\<lambda>(p, q). primary_at p q) (numbered 1650 ts_primary_state_ids_12)"
  "list_all (\<lambda>(p, q). primary_at p q) (numbered 1800 ts_primary_state_ids_13)"
  "list_all (\<lambda>(p, q). primary_at p q) (numbered 1950 ts_primary_state_ids_14)"
  "list_all (\<lambda>(p, q). primary_at p q) (numbered 2100 ts_primary_state_ids_15)"
  "list_all (\<lambda>(p, q). primary_at p q) (numbered 2250 ts_primary_state_ids_16)"
  "list_all (\<lambda>(p, q). primary_at p q) (numbered 2400 ts_primary_state_ids_17)"
  "list_all (\<lambda>(p, q). primary_at p q) (numbered 2550 ts_primary_state_ids_18)"
  "list_all (\<lambda>(p, q). primary_at p q) (numbered 2700 ts_primary_state_ids_19)"
  "list_all (\<lambda>(p, q). primary_at p q) (numbered 2850 ts_primary_state_ids_20)"
  "list_all (\<lambda>(p, q). primary_at p q) (numbered 3000 ts_primary_state_ids_21)"
  "list_all (\<lambda>(p, q). primary_at p q) (numbered 3150 ts_primary_state_ids_22)"
  "list_all (\<lambda>(p, q). primary_at p q) (numbered 3300 ts_primary_state_ids_23)"
  "list_all (\<lambda>(p, q). primary_at p q) (numbered 3450 ts_primary_state_ids_24)"
  "list_all (\<lambda>(p, q). primary_at p q) (numbered 3600 ts_primary_state_ids_25)"
  "list_all (\<lambda>(p, q). primary_at p q) (numbered 3750 ts_primary_state_ids_26)"
  "list_all (\<lambda>(p, q). primary_at p q) (numbered 3900 ts_primary_state_ids_27)"
  "list_all (\<lambda>(p, q). primary_at p q) (numbered 4050 ts_primary_state_ids_28)"
  "list_all (\<lambda>(p, q). primary_at p q) (numbered 4200 ts_primary_state_ids_29)"
  "list_all (\<lambda>(p, q). primary_at p q) (numbered 4350 ts_primary_state_ids_30)"
  "list_all (\<lambda>(p, q). primary_at p q) (numbered 4500 ts_primary_state_ids_31)"
  "list_all (\<lambda>(p, q). primary_at p q) (numbered 4650 ts_primary_state_ids_32)"
  "list_all (\<lambda>(p, q). primary_at p q) (numbered 4800 ts_primary_state_ids_33)"
  "list_all (\<lambda>(p, q). primary_at p q) (numbered 4950 ts_primary_state_ids_34)"
  "list_all (\<lambda>(p, q). primary_at p q) (numbered 5100 ts_primary_state_ids_35)"
  "list_all (\<lambda>(p, q). primary_at p q) (numbered 5250 ts_primary_state_ids_36)"
  "list_all (\<lambda>(p, q). primary_at p q) (numbered 5400 ts_primary_state_ids_37)"
  "list_all (\<lambda>(p, q). primary_at p q) (numbered 5550 ts_primary_state_ids_38)"
  "list_all (\<lambda>(p, q). primary_at p q) (numbered 5700 ts_primary_state_ids_39)"
  "list_all (\<lambda>(p, q). primary_at p q) (numbered 5850 ts_primary_state_ids_40)"
  "list_all (\<lambda>(p, q). primary_at p q) (numbered 6000 ts_primary_state_ids_41)"
  "list_all (\<lambda>(p, q). primary_at p q) (numbered 6150 ts_primary_state_ids_42)"
  "list_all (\<lambda>(p, q). primary_at p q) (numbered 6300 ts_primary_state_ids_43)"
  "list_all (\<lambda>(p, q). primary_at p q) (numbered 6450 ts_primary_state_ids_44)"
  "list_all (\<lambda>(p, q). primary_at p q) (numbered 6600 ts_primary_state_ids_45)"
  "list_all (\<lambda>(p, q). primary_at p q) (numbered 6750 ts_primary_state_ids_46)"
  "list_all (\<lambda>(p, q). primary_at p q) (numbered 6900 ts_primary_state_ids_47)"
  "list_all (\<lambda>(p, q). primary_at p q) (numbered 7050 ts_primary_state_ids_48)"
  "list_all (\<lambda>(p, q). primary_at p q) (numbered 7200 ts_primary_state_ids_49)"
  "list_all (\<lambda>(p, q). primary_at p q) (numbered 7350 ts_primary_state_ids_50)"
  "list_all (\<lambda>(p, q). primary_at p q) (numbered 7500 ts_primary_state_ids_51)"
  "list_all (\<lambda>(p, q). primary_at p q) (numbered 7650 ts_primary_state_ids_52)"
  "list_all (\<lambda>(p, q). primary_at p q) (numbered 7800 ts_primary_state_ids_53)"
  "list_all (\<lambda>(p, q). primary_at p q) (numbered 7950 ts_primary_state_ids_54)"
  "list_all (\<lambda>(p, q). primary_at p q) (numbered 8100 ts_primary_state_ids_55)"
  "list_all (\<lambda>(p, q). primary_at p q) (numbered 8250 ts_primary_state_ids_56)"
  "list_all (\<lambda>(p, q). primary_at p q) (numbered 8400 ts_primary_state_ids_57)"
  "list_all (\<lambda>(p, q). primary_at p q) (numbered 8550 ts_primary_state_ids_58)"
  "list_all (\<lambda>(p, q). primary_at p q) (numbered 8700 ts_primary_state_ids_59)"
  "list_all (\<lambda>(p, q). primary_at p q) (numbered 8850 ts_primary_state_ids_60)"
  "list_all (\<lambda>(p, q). primary_at p q) (numbered 9000 ts_primary_state_ids_61)"
  "list_all (\<lambda>(p, q). primary_at p q) (numbered 9150 ts_primary_state_ids_62)"
  "list_all (\<lambda>(p, q). primary_at p q) (numbered 9300 ts_primary_state_ids_63)"
  "list_all (\<lambda>(p, q). primary_at p q) (numbered 9450 ts_primary_state_ids_64)"
  "list_all (\<lambda>(p, q). primary_at p q) (numbered 9600 ts_primary_state_ids_65)"
  "list_all (\<lambda>(p, q). primary_at p q) (numbered 9750 ts_primary_state_ids_66)"
  "list_all (\<lambda>(p, q). primary_at p q) (numbered 9900 ts_primary_state_ids_67)"
  "list_all (\<lambda>(p, q). primary_at p q) (numbered 10050 ts_primary_state_ids_68)"
  "list_all (\<lambda>(p, q). primary_at p q) (numbered 10200 ts_primary_state_ids_69)"
  "list_all (\<lambda>(p, q). primary_at p q) (numbered 10350 ts_primary_state_ids_70)"
  "list_all (\<lambda>(p, q). primary_at p q) (numbered 10500 ts_primary_state_ids_71)"
  by (simp_all only: primary_whole)

lemmas primary_1 [simp] = primary_parts(1) [unfolded ts_primary_state_ids_1_def numbered_simps entry_simps]

lemmas primary_2 [simp] = primary_parts(2) [unfolded ts_primary_state_ids_2_def numbered_simps entry_simps]

lemmas primary_3 [simp] = primary_parts(3) [unfolded ts_primary_state_ids_3_def numbered_simps entry_simps]

lemmas primary_4 [simp] = primary_parts(4) [unfolded ts_primary_state_ids_4_def numbered_simps entry_simps]

lemmas primary_5 [simp] = primary_parts(5) [unfolded ts_primary_state_ids_5_def numbered_simps entry_simps]

lemmas primary_6 [simp] = primary_parts(6) [unfolded ts_primary_state_ids_6_def numbered_simps entry_simps]

lemmas primary_7 [simp] = primary_parts(7) [unfolded ts_primary_state_ids_7_def numbered_simps entry_simps]

lemmas primary_8 [simp] = primary_parts(8) [unfolded ts_primary_state_ids_8_def numbered_simps entry_simps]

lemmas primary_9 [simp] = primary_parts(9) [unfolded ts_primary_state_ids_9_def numbered_simps entry_simps]

lemmas primary_10 [simp] = primary_parts(10) [unfolded ts_primary_state_ids_10_def numbered_simps entry_simps]

lemmas primary_11 [simp] = primary_parts(11) [unfolded ts_primary_state_ids_11_def numbered_simps entry_simps]

lemmas primary_12 [simp] = primary_parts(12) [unfolded ts_primary_state_ids_12_def numbered_simps entry_simps]

lemmas primary_13 [simp] = primary_parts(13) [unfolded ts_primary_state_ids_13_def numbered_simps entry_simps]

lemmas primary_14 [simp] = primary_parts(14) [unfolded ts_primary_state_ids_14_def numbered_simps entry_simps]

lemmas primary_15 [simp] = primary_parts(15) [unfolded ts_primary_state_ids_15_def numbered_simps entry_simps]

lemmas primary_16 [simp] = primary_parts(16) [unfolded ts_primary_state_ids_16_def numbered_simps entry_simps]

lemmas primary_17 [simp] = primary_parts(17) [unfolded ts_primary_state_ids_17_def numbered_simps entry_simps]

lemmas primary_18 [simp] = primary_parts(18) [unfolded ts_primary_state_ids_18_def numbered_simps entry_simps]

lemmas primary_19 [simp] = primary_parts(19) [unfolded ts_primary_state_ids_19_def numbered_simps entry_simps]

lemmas primary_20 [simp] = primary_parts(20) [unfolded ts_primary_state_ids_20_def numbered_simps entry_simps]

lemmas primary_21 [simp] = primary_parts(21) [unfolded ts_primary_state_ids_21_def numbered_simps entry_simps]

lemmas primary_22 [simp] = primary_parts(22) [unfolded ts_primary_state_ids_22_def numbered_simps entry_simps]

lemmas primary_23 [simp] = primary_parts(23) [unfolded ts_primary_state_ids_23_def numbered_simps entry_simps]

lemmas primary_24 [simp] = primary_parts(24) [unfolded ts_primary_state_ids_24_def numbered_simps entry_simps]

lemmas primary_25 [simp] = primary_parts(25) [unfolded ts_primary_state_ids_25_def numbered_simps entry_simps]

lemmas primary_26 [simp] = primary_parts(26) [unfolded ts_primary_state_ids_26_def numbered_simps entry_simps]

lemmas primary_27 [simp] = primary_parts(27) [unfolded ts_primary_state_ids_27_def numbered_simps entry_simps]

lemmas primary_28 [simp] = primary_parts(28) [unfolded ts_primary_state_ids_28_def numbered_simps entry_simps]

lemmas primary_29 [simp] = primary_parts(29) [unfolded ts_primary_state_ids_29_def numbered_simps entry_simps]

lemmas primary_30 [simp] = primary_parts(30) [unfolded ts_primary_state_ids_30_def numbered_simps entry_simps]

lemmas primary_31 [simp] = primary_parts(31) [unfolded ts_primary_state_ids_31_def numbered_simps entry_simps]

lemmas primary_32 [simp] = primary_parts(32) [unfolded ts_primary_state_ids_32_def numbered_simps entry_simps]

lemmas primary_33 [simp] = primary_parts(33) [unfolded ts_primary_state_ids_33_def numbered_simps entry_simps]

lemmas primary_34 [simp] = primary_parts(34) [unfolded ts_primary_state_ids_34_def numbered_simps entry_simps]

lemmas primary_35 [simp] = primary_parts(35) [unfolded ts_primary_state_ids_35_def numbered_simps entry_simps]

lemmas primary_36 [simp] = primary_parts(36) [unfolded ts_primary_state_ids_36_def numbered_simps entry_simps]

lemmas primary_37 [simp] = primary_parts(37) [unfolded ts_primary_state_ids_37_def numbered_simps entry_simps]

lemmas primary_38 [simp] = primary_parts(38) [unfolded ts_primary_state_ids_38_def numbered_simps entry_simps]

lemmas primary_39 [simp] = primary_parts(39) [unfolded ts_primary_state_ids_39_def numbered_simps entry_simps]

lemmas primary_40 [simp] = primary_parts(40) [unfolded ts_primary_state_ids_40_def numbered_simps entry_simps]

lemmas primary_41 [simp] = primary_parts(41) [unfolded ts_primary_state_ids_41_def numbered_simps entry_simps]

lemmas primary_42 [simp] = primary_parts(42) [unfolded ts_primary_state_ids_42_def numbered_simps entry_simps]

lemmas primary_43 [simp] = primary_parts(43) [unfolded ts_primary_state_ids_43_def numbered_simps entry_simps]

lemmas primary_44 [simp] = primary_parts(44) [unfolded ts_primary_state_ids_44_def numbered_simps entry_simps]

lemmas primary_45 [simp] = primary_parts(45) [unfolded ts_primary_state_ids_45_def numbered_simps entry_simps]

lemmas primary_46 [simp] = primary_parts(46) [unfolded ts_primary_state_ids_46_def numbered_simps entry_simps]

lemmas primary_47 [simp] = primary_parts(47) [unfolded ts_primary_state_ids_47_def numbered_simps entry_simps]

lemmas primary_48 [simp] = primary_parts(48) [unfolded ts_primary_state_ids_48_def numbered_simps entry_simps]

lemmas primary_49 [simp] = primary_parts(49) [unfolded ts_primary_state_ids_49_def numbered_simps entry_simps]

lemmas primary_50 [simp] = primary_parts(50) [unfolded ts_primary_state_ids_50_def numbered_simps entry_simps]

lemmas primary_51 [simp] = primary_parts(51) [unfolded ts_primary_state_ids_51_def numbered_simps entry_simps]

lemmas primary_52 [simp] = primary_parts(52) [unfolded ts_primary_state_ids_52_def numbered_simps entry_simps]

lemmas primary_53 [simp] = primary_parts(53) [unfolded ts_primary_state_ids_53_def numbered_simps entry_simps]

lemmas primary_54 [simp] = primary_parts(54) [unfolded ts_primary_state_ids_54_def numbered_simps entry_simps]

lemmas primary_55 [simp] = primary_parts(55) [unfolded ts_primary_state_ids_55_def numbered_simps entry_simps]

lemmas primary_56 [simp] = primary_parts(56) [unfolded ts_primary_state_ids_56_def numbered_simps entry_simps]

lemmas primary_57 [simp] = primary_parts(57) [unfolded ts_primary_state_ids_57_def numbered_simps entry_simps]

lemmas primary_58 [simp] = primary_parts(58) [unfolded ts_primary_state_ids_58_def numbered_simps entry_simps]

lemmas primary_59 [simp] = primary_parts(59) [unfolded ts_primary_state_ids_59_def numbered_simps entry_simps]

lemmas primary_60 [simp] = primary_parts(60) [unfolded ts_primary_state_ids_60_def numbered_simps entry_simps]

lemmas primary_61 [simp] = primary_parts(61) [unfolded ts_primary_state_ids_61_def numbered_simps entry_simps]

lemmas primary_62 [simp] = primary_parts(62) [unfolded ts_primary_state_ids_62_def numbered_simps entry_simps]

lemmas primary_63 [simp] = primary_parts(63) [unfolded ts_primary_state_ids_63_def numbered_simps entry_simps]

lemmas primary_64 [simp] = primary_parts(64) [unfolded ts_primary_state_ids_64_def numbered_simps entry_simps]

lemmas primary_65 [simp] = primary_parts(65) [unfolded ts_primary_state_ids_65_def numbered_simps entry_simps]

lemmas primary_66 [simp] = primary_parts(66) [unfolded ts_primary_state_ids_66_def numbered_simps entry_simps]

lemmas primary_67 [simp] = primary_parts(67) [unfolded ts_primary_state_ids_67_def numbered_simps entry_simps]

lemmas primary_68 [simp] = primary_parts(68) [unfolded ts_primary_state_ids_68_def numbered_simps entry_simps]

lemmas primary_69 [simp] = primary_parts(69) [unfolded ts_primary_state_ids_69_def numbered_simps entry_simps]

lemmas primary_70 [simp] = primary_parts(70) [unfolded ts_primary_state_ids_70_def numbered_simps entry_simps]

lemmas primary_71 [simp] = primary_parts(71) [unfolded ts_primary_state_ids_71_def numbered_simps entry_simps]

definition primary_ok :: "nat \<Rightarrow> TSStateId \<Rightarrow> bool" where
  "primary_ok p q \<longleftrightarrow> q \<le> p \<and> primary_at q q"

lemma primary_ok_1: "list_all (\<lambda>(p, q). primary_ok p q) (numbered 0 ts_primary_state_ids_1)"
  unfolding ts_primary_state_ids_1_def numbered_simps by (simp add: primary_ok_def del: One_nat_def cong: list_all_weak)

lemma primary_ok_2: "list_all (\<lambda>(p, q). primary_ok p q) (numbered 150 ts_primary_state_ids_2)"
  unfolding ts_primary_state_ids_2_def numbered_simps by (simp add: primary_ok_def del: One_nat_def cong: list_all_weak)

lemma primary_ok_3: "list_all (\<lambda>(p, q). primary_ok p q) (numbered 300 ts_primary_state_ids_3)"
  unfolding ts_primary_state_ids_3_def numbered_simps by (simp add: primary_ok_def del: One_nat_def cong: list_all_weak)

lemma primary_ok_4: "list_all (\<lambda>(p, q). primary_ok p q) (numbered 450 ts_primary_state_ids_4)"
  unfolding ts_primary_state_ids_4_def numbered_simps by (simp add: primary_ok_def del: One_nat_def cong: list_all_weak)

lemma primary_ok_5: "list_all (\<lambda>(p, q). primary_ok p q) (numbered 600 ts_primary_state_ids_5)"
  unfolding ts_primary_state_ids_5_def numbered_simps by (simp add: primary_ok_def del: One_nat_def cong: list_all_weak)

lemma primary_ok_6: "list_all (\<lambda>(p, q). primary_ok p q) (numbered 750 ts_primary_state_ids_6)"
  unfolding ts_primary_state_ids_6_def numbered_simps by (simp add: primary_ok_def del: One_nat_def cong: list_all_weak)

lemma primary_ok_7: "list_all (\<lambda>(p, q). primary_ok p q) (numbered 900 ts_primary_state_ids_7)"
  unfolding ts_primary_state_ids_7_def numbered_simps by (simp add: primary_ok_def del: One_nat_def cong: list_all_weak)

lemma primary_ok_8: "list_all (\<lambda>(p, q). primary_ok p q) (numbered 1050 ts_primary_state_ids_8)"
  unfolding ts_primary_state_ids_8_def numbered_simps by (simp add: primary_ok_def del: One_nat_def cong: list_all_weak)

lemma primary_ok_9: "list_all (\<lambda>(p, q). primary_ok p q) (numbered 1200 ts_primary_state_ids_9)"
  unfolding ts_primary_state_ids_9_def numbered_simps by (simp add: primary_ok_def del: One_nat_def cong: list_all_weak)

lemma primary_ok_10: "list_all (\<lambda>(p, q). primary_ok p q) (numbered 1350 ts_primary_state_ids_10)"
  unfolding ts_primary_state_ids_10_def numbered_simps by (simp add: primary_ok_def del: One_nat_def cong: list_all_weak)

lemma primary_ok_11: "list_all (\<lambda>(p, q). primary_ok p q) (numbered 1500 ts_primary_state_ids_11)"
  unfolding ts_primary_state_ids_11_def numbered_simps by (simp add: primary_ok_def del: One_nat_def cong: list_all_weak)

lemma primary_ok_12: "list_all (\<lambda>(p, q). primary_ok p q) (numbered 1650 ts_primary_state_ids_12)"
  unfolding ts_primary_state_ids_12_def numbered_simps by (simp add: primary_ok_def del: One_nat_def cong: list_all_weak)

lemma primary_ok_13: "list_all (\<lambda>(p, q). primary_ok p q) (numbered 1800 ts_primary_state_ids_13)"
  unfolding ts_primary_state_ids_13_def numbered_simps by (simp add: primary_ok_def del: One_nat_def cong: list_all_weak)

lemma primary_ok_14: "list_all (\<lambda>(p, q). primary_ok p q) (numbered 1950 ts_primary_state_ids_14)"
  unfolding ts_primary_state_ids_14_def numbered_simps by (simp add: primary_ok_def del: One_nat_def cong: list_all_weak)

lemma primary_ok_15: "list_all (\<lambda>(p, q). primary_ok p q) (numbered 2100 ts_primary_state_ids_15)"
  unfolding ts_primary_state_ids_15_def numbered_simps by (simp add: primary_ok_def del: One_nat_def cong: list_all_weak)

lemma primary_ok_16: "list_all (\<lambda>(p, q). primary_ok p q) (numbered 2250 ts_primary_state_ids_16)"
  unfolding ts_primary_state_ids_16_def numbered_simps by (simp add: primary_ok_def del: One_nat_def cong: list_all_weak)

lemma primary_ok_17: "list_all (\<lambda>(p, q). primary_ok p q) (numbered 2400 ts_primary_state_ids_17)"
  unfolding ts_primary_state_ids_17_def numbered_simps by (simp add: primary_ok_def del: One_nat_def cong: list_all_weak)

lemma primary_ok_18: "list_all (\<lambda>(p, q). primary_ok p q) (numbered 2550 ts_primary_state_ids_18)"
  unfolding ts_primary_state_ids_18_def numbered_simps by (simp add: primary_ok_def del: One_nat_def cong: list_all_weak)

lemma primary_ok_19: "list_all (\<lambda>(p, q). primary_ok p q) (numbered 2700 ts_primary_state_ids_19)"
  unfolding ts_primary_state_ids_19_def numbered_simps by (simp add: primary_ok_def del: One_nat_def cong: list_all_weak)

lemma primary_ok_20: "list_all (\<lambda>(p, q). primary_ok p q) (numbered 2850 ts_primary_state_ids_20)"
  unfolding ts_primary_state_ids_20_def numbered_simps by (simp add: primary_ok_def del: One_nat_def cong: list_all_weak)

lemma primary_ok_21: "list_all (\<lambda>(p, q). primary_ok p q) (numbered 3000 ts_primary_state_ids_21)"
  unfolding ts_primary_state_ids_21_def numbered_simps by (simp add: primary_ok_def del: One_nat_def cong: list_all_weak)

lemma primary_ok_22: "list_all (\<lambda>(p, q). primary_ok p q) (numbered 3150 ts_primary_state_ids_22)"
  unfolding ts_primary_state_ids_22_def numbered_simps by (simp add: primary_ok_def del: One_nat_def cong: list_all_weak)

lemma primary_ok_23: "list_all (\<lambda>(p, q). primary_ok p q) (numbered 3300 ts_primary_state_ids_23)"
  unfolding ts_primary_state_ids_23_def numbered_simps by (simp add: primary_ok_def del: One_nat_def cong: list_all_weak)

lemma primary_ok_24: "list_all (\<lambda>(p, q). primary_ok p q) (numbered 3450 ts_primary_state_ids_24)"
  unfolding ts_primary_state_ids_24_def numbered_simps by (simp add: primary_ok_def del: One_nat_def cong: list_all_weak)

lemma primary_ok_25: "list_all (\<lambda>(p, q). primary_ok p q) (numbered 3600 ts_primary_state_ids_25)"
  unfolding ts_primary_state_ids_25_def numbered_simps by (simp add: primary_ok_def del: One_nat_def cong: list_all_weak)

lemma primary_ok_26: "list_all (\<lambda>(p, q). primary_ok p q) (numbered 3750 ts_primary_state_ids_26)"
  unfolding ts_primary_state_ids_26_def numbered_simps by (simp add: primary_ok_def del: One_nat_def cong: list_all_weak)

lemma primary_ok_27: "list_all (\<lambda>(p, q). primary_ok p q) (numbered 3900 ts_primary_state_ids_27)"
  unfolding ts_primary_state_ids_27_def numbered_simps by (simp add: primary_ok_def del: One_nat_def cong: list_all_weak)

lemma primary_ok_28: "list_all (\<lambda>(p, q). primary_ok p q) (numbered 4050 ts_primary_state_ids_28)"
  unfolding ts_primary_state_ids_28_def numbered_simps by (simp add: primary_ok_def del: One_nat_def cong: list_all_weak)

lemma primary_ok_29: "list_all (\<lambda>(p, q). primary_ok p q) (numbered 4200 ts_primary_state_ids_29)"
  unfolding ts_primary_state_ids_29_def numbered_simps by (simp add: primary_ok_def del: One_nat_def cong: list_all_weak)

lemma primary_ok_30: "list_all (\<lambda>(p, q). primary_ok p q) (numbered 4350 ts_primary_state_ids_30)"
  unfolding ts_primary_state_ids_30_def numbered_simps by (simp add: primary_ok_def del: One_nat_def cong: list_all_weak)

lemma primary_ok_31: "list_all (\<lambda>(p, q). primary_ok p q) (numbered 4500 ts_primary_state_ids_31)"
  unfolding ts_primary_state_ids_31_def numbered_simps by (simp add: primary_ok_def del: One_nat_def cong: list_all_weak)

lemma primary_ok_32: "list_all (\<lambda>(p, q). primary_ok p q) (numbered 4650 ts_primary_state_ids_32)"
  unfolding ts_primary_state_ids_32_def numbered_simps by (simp add: primary_ok_def del: One_nat_def cong: list_all_weak)

lemma primary_ok_33: "list_all (\<lambda>(p, q). primary_ok p q) (numbered 4800 ts_primary_state_ids_33)"
  unfolding ts_primary_state_ids_33_def numbered_simps by (simp add: primary_ok_def del: One_nat_def cong: list_all_weak)

lemma primary_ok_34: "list_all (\<lambda>(p, q). primary_ok p q) (numbered 4950 ts_primary_state_ids_34)"
  unfolding ts_primary_state_ids_34_def numbered_simps by (simp add: primary_ok_def del: One_nat_def cong: list_all_weak)

lemma primary_ok_35: "list_all (\<lambda>(p, q). primary_ok p q) (numbered 5100 ts_primary_state_ids_35)"
  unfolding ts_primary_state_ids_35_def numbered_simps by (simp add: primary_ok_def del: One_nat_def cong: list_all_weak)

lemma primary_ok_36: "list_all (\<lambda>(p, q). primary_ok p q) (numbered 5250 ts_primary_state_ids_36)"
  unfolding ts_primary_state_ids_36_def numbered_simps by (simp add: primary_ok_def del: One_nat_def cong: list_all_weak)

lemma primary_ok_37: "list_all (\<lambda>(p, q). primary_ok p q) (numbered 5400 ts_primary_state_ids_37)"
  unfolding ts_primary_state_ids_37_def numbered_simps by (simp add: primary_ok_def del: One_nat_def cong: list_all_weak)

lemma primary_ok_38: "list_all (\<lambda>(p, q). primary_ok p q) (numbered 5550 ts_primary_state_ids_38)"
  unfolding ts_primary_state_ids_38_def numbered_simps by (simp add: primary_ok_def del: One_nat_def cong: list_all_weak)

lemma primary_ok_39: "list_all (\<lambda>(p, q). primary_ok p q) (numbered 5700 ts_primary_state_ids_39)"
  unfolding ts_primary_state_ids_39_def numbered_simps by (simp add: primary_ok_def del: One_nat_def cong: list_all_weak)

lemma primary_ok_40: "list_all (\<lambda>(p, q). primary_ok p q) (numbered 5850 ts_primary_state_ids_40)"
  unfolding ts_primary_state_ids_40_def numbered_simps by (simp add: primary_ok_def del: One_nat_def cong: list_all_weak)

lemma primary_ok_41: "list_all (\<lambda>(p, q). primary_ok p q) (numbered 6000 ts_primary_state_ids_41)"
  unfolding ts_primary_state_ids_41_def numbered_simps by (simp add: primary_ok_def del: One_nat_def cong: list_all_weak)

lemma primary_ok_42: "list_all (\<lambda>(p, q). primary_ok p q) (numbered 6150 ts_primary_state_ids_42)"
  unfolding ts_primary_state_ids_42_def numbered_simps by (simp add: primary_ok_def del: One_nat_def cong: list_all_weak)

lemma primary_ok_43: "list_all (\<lambda>(p, q). primary_ok p q) (numbered 6300 ts_primary_state_ids_43)"
  unfolding ts_primary_state_ids_43_def numbered_simps by (simp add: primary_ok_def del: One_nat_def cong: list_all_weak)

lemma primary_ok_44: "list_all (\<lambda>(p, q). primary_ok p q) (numbered 6450 ts_primary_state_ids_44)"
  unfolding ts_primary_state_ids_44_def numbered_simps by (simp add: primary_ok_def del: One_nat_def cong: list_all_weak)

lemma primary_ok_45: "list_all (\<lambda>(p, q). primary_ok p q) (numbered 6600 ts_primary_state_ids_45)"
  unfolding ts_primary_state_ids_45_def numbered_simps by (simp add: primary_ok_def del: One_nat_def cong: list_all_weak)

lemma primary_ok_46: "list_all (\<lambda>(p, q). primary_ok p q) (numbered 6750 ts_primary_state_ids_46)"
  unfolding ts_primary_state_ids_46_def numbered_simps by (simp add: primary_ok_def del: One_nat_def cong: list_all_weak)

lemma primary_ok_47: "list_all (\<lambda>(p, q). primary_ok p q) (numbered 6900 ts_primary_state_ids_47)"
  unfolding ts_primary_state_ids_47_def numbered_simps by (simp add: primary_ok_def del: One_nat_def cong: list_all_weak)

lemma primary_ok_48: "list_all (\<lambda>(p, q). primary_ok p q) (numbered 7050 ts_primary_state_ids_48)"
  unfolding ts_primary_state_ids_48_def numbered_simps by (simp add: primary_ok_def del: One_nat_def cong: list_all_weak)

lemma primary_ok_49: "list_all (\<lambda>(p, q). primary_ok p q) (numbered 7200 ts_primary_state_ids_49)"
  unfolding ts_primary_state_ids_49_def numbered_simps by (simp add: primary_ok_def del: One_nat_def cong: list_all_weak)

lemma primary_ok_50: "list_all (\<lambda>(p, q). primary_ok p q) (numbered 7350 ts_primary_state_ids_50)"
  unfolding ts_primary_state_ids_50_def numbered_simps by (simp add: primary_ok_def del: One_nat_def cong: list_all_weak)

lemma primary_ok_51: "list_all (\<lambda>(p, q). primary_ok p q) (numbered 7500 ts_primary_state_ids_51)"
  unfolding ts_primary_state_ids_51_def numbered_simps by (simp add: primary_ok_def del: One_nat_def cong: list_all_weak)

lemma primary_ok_52: "list_all (\<lambda>(p, q). primary_ok p q) (numbered 7650 ts_primary_state_ids_52)"
  unfolding ts_primary_state_ids_52_def numbered_simps by (simp add: primary_ok_def del: One_nat_def cong: list_all_weak)

lemma primary_ok_53: "list_all (\<lambda>(p, q). primary_ok p q) (numbered 7800 ts_primary_state_ids_53)"
  unfolding ts_primary_state_ids_53_def numbered_simps by (simp add: primary_ok_def del: One_nat_def cong: list_all_weak)

lemma primary_ok_54: "list_all (\<lambda>(p, q). primary_ok p q) (numbered 7950 ts_primary_state_ids_54)"
  unfolding ts_primary_state_ids_54_def numbered_simps by (simp add: primary_ok_def del: One_nat_def cong: list_all_weak)

lemma primary_ok_55: "list_all (\<lambda>(p, q). primary_ok p q) (numbered 8100 ts_primary_state_ids_55)"
  unfolding ts_primary_state_ids_55_def numbered_simps by (simp add: primary_ok_def del: One_nat_def cong: list_all_weak)

lemma primary_ok_56: "list_all (\<lambda>(p, q). primary_ok p q) (numbered 8250 ts_primary_state_ids_56)"
  unfolding ts_primary_state_ids_56_def numbered_simps by (simp add: primary_ok_def del: One_nat_def cong: list_all_weak)

lemma primary_ok_57: "list_all (\<lambda>(p, q). primary_ok p q) (numbered 8400 ts_primary_state_ids_57)"
  unfolding ts_primary_state_ids_57_def numbered_simps by (simp add: primary_ok_def del: One_nat_def cong: list_all_weak)

lemma primary_ok_58: "list_all (\<lambda>(p, q). primary_ok p q) (numbered 8550 ts_primary_state_ids_58)"
  unfolding ts_primary_state_ids_58_def numbered_simps by (simp add: primary_ok_def del: One_nat_def cong: list_all_weak)

lemma primary_ok_59: "list_all (\<lambda>(p, q). primary_ok p q) (numbered 8700 ts_primary_state_ids_59)"
  unfolding ts_primary_state_ids_59_def numbered_simps by (simp add: primary_ok_def del: One_nat_def cong: list_all_weak)

lemma primary_ok_60: "list_all (\<lambda>(p, q). primary_ok p q) (numbered 8850 ts_primary_state_ids_60)"
  unfolding ts_primary_state_ids_60_def numbered_simps by (simp add: primary_ok_def del: One_nat_def cong: list_all_weak)

lemma primary_ok_61: "list_all (\<lambda>(p, q). primary_ok p q) (numbered 9000 ts_primary_state_ids_61)"
  unfolding ts_primary_state_ids_61_def numbered_simps by (simp add: primary_ok_def del: One_nat_def cong: list_all_weak)

lemma primary_ok_62: "list_all (\<lambda>(p, q). primary_ok p q) (numbered 9150 ts_primary_state_ids_62)"
  unfolding ts_primary_state_ids_62_def numbered_simps by (simp add: primary_ok_def del: One_nat_def cong: list_all_weak)

lemma primary_ok_63: "list_all (\<lambda>(p, q). primary_ok p q) (numbered 9300 ts_primary_state_ids_63)"
  unfolding ts_primary_state_ids_63_def numbered_simps by (simp add: primary_ok_def del: One_nat_def cong: list_all_weak)

lemma primary_ok_64: "list_all (\<lambda>(p, q). primary_ok p q) (numbered 9450 ts_primary_state_ids_64)"
  unfolding ts_primary_state_ids_64_def numbered_simps by (simp add: primary_ok_def del: One_nat_def cong: list_all_weak)

lemma primary_ok_65: "list_all (\<lambda>(p, q). primary_ok p q) (numbered 9600 ts_primary_state_ids_65)"
  unfolding ts_primary_state_ids_65_def numbered_simps by (simp add: primary_ok_def del: One_nat_def cong: list_all_weak)

lemma primary_ok_66: "list_all (\<lambda>(p, q). primary_ok p q) (numbered 9750 ts_primary_state_ids_66)"
  unfolding ts_primary_state_ids_66_def numbered_simps by (simp add: primary_ok_def del: One_nat_def cong: list_all_weak)

lemma primary_ok_67: "list_all (\<lambda>(p, q). primary_ok p q) (numbered 9900 ts_primary_state_ids_67)"
  unfolding ts_primary_state_ids_67_def numbered_simps by (simp add: primary_ok_def del: One_nat_def cong: list_all_weak)

lemma primary_ok_68: "list_all (\<lambda>(p, q). primary_ok p q) (numbered 10050 ts_primary_state_ids_68)"
  unfolding ts_primary_state_ids_68_def numbered_simps by (simp add: primary_ok_def del: One_nat_def cong: list_all_weak)

lemma primary_ok_69: "list_all (\<lambda>(p, q). primary_ok p q) (numbered 10200 ts_primary_state_ids_69)"
  unfolding ts_primary_state_ids_69_def numbered_simps by (simp add: primary_ok_def del: One_nat_def cong: list_all_weak)

lemma primary_ok_70: "list_all (\<lambda>(p, q). primary_ok p q) (numbered 10350 ts_primary_state_ids_70)"
  unfolding ts_primary_state_ids_70_def numbered_simps by (simp add: primary_ok_def del: One_nat_def cong: list_all_weak)

lemma primary_ok_71: "list_all (\<lambda>(p, q). primary_ok p q) (numbered 10500 ts_primary_state_ids_71)"
  unfolding ts_primary_state_ids_71_def numbered_simps by (simp add: primary_ok_def del: One_nat_def cong: list_all_weak)

lemma primary_states_ok: "list_all (\<lambda>(p, q). primary_ok p q) (numbered 0 ts_primary_state_ids)"
  by (simp add: ts_primary_state_ids_def numbered_append primary_lengths
      primary_ok_1 primary_ok_2 primary_ok_3 primary_ok_4 primary_ok_5 primary_ok_6 primary_ok_7
      primary_ok_8 primary_ok_9 primary_ok_10 primary_ok_11 primary_ok_12 primary_ok_13
      primary_ok_14 primary_ok_15 primary_ok_16 primary_ok_17 primary_ok_18 primary_ok_19
      primary_ok_20 primary_ok_21 primary_ok_22 primary_ok_23 primary_ok_24 primary_ok_25
      primary_ok_26 primary_ok_27 primary_ok_28 primary_ok_29 primary_ok_30 primary_ok_31
      primary_ok_32 primary_ok_33 primary_ok_34 primary_ok_35 primary_ok_36 primary_ok_37
      primary_ok_38 primary_ok_39 primary_ok_40 primary_ok_41 primary_ok_42 primary_ok_43
      primary_ok_44 primary_ok_45 primary_ok_46 primary_ok_47 primary_ok_48 primary_ok_49
      primary_ok_50 primary_ok_51 primary_ok_52 primary_ok_53 primary_ok_54 primary_ok_55
      primary_ok_56 primary_ok_57 primary_ok_58 primary_ok_59 primary_ok_60 primary_ok_61
      primary_ok_62 primary_ok_63 primary_ok_64 primary_ok_65 primary_ok_66 primary_ok_67
      primary_ok_68 primary_ok_69 primary_ok_70 primary_ok_71)

lemma length_primary_states: "length ts_primary_state_ids = STATE_COUNT"
  by (simp add: ts_primary_state_ids_def primary_lengths STATE_COUNT_def)

text \<open>
  C31. Every state of the parser is represented by a state of the same table, not after it, that
  represents itself: one step leads to the representative, and two states have the same one or are
  told apart.
\<close>

theorem primary_state_represents:
  assumes "p < STATE_COUNT" and "q = ts_primary_state_ids ! p"
  shows "q \<le> p \<and> q < STATE_COUNT \<and> ts_primary_state_ids ! q = q"
  using primary_states_ok assms
  by (auto simp: numbered_all length_primary_states primary_ok_def primary_at_def)

theorem primary_state_represents_witness:
  "ts_primary_state_ids ! 3 = 2 \<and> ts_primary_state_ids ! 2 = 2"
proof -
  have at: "2 = ts_primary_state_ids ! 3"
    using primary_1 by (simp add: primary_at_def)
  from primary_state_represents[OF _ at] show ?thesis
    by (simp add: STATE_COUNT_def at [symmetric])
qed

end
