(* ===== verification/Parse_Cells.thy ===== *)
theory Parse_Cells
  imports Grammar_Symbols
begin

text \<open>
  What the cells of \<open>ts_parse_table\<close> of \<open>src/crates/tree-sitter/src/parser.c\<close> keep: a row has one cell for
  each symbol that can come next in its state, the index of the actions for a token and the next state
  for a non-terminal (the macros \<open>ACTIONS\<close> and \<open>STATE\<close> are the identity).
\<close>

type_synonym parse_row = "(TSSymbol \<times> nat) list"

section \<open>The tokens of each mode\<close>

text \<open>For each pair of a lex state and a row of the external scanner the tokens its states may have.\<close>

definition extra_tokens :: "TSSymbol list" where
  "extra_tokens = [sym_line_comment, sym_c_style_comment, sym_pascal_style_comment, sym_pragma]"

definition sign_tokens :: "TSSymbol list" where
  "sign_tokens = [sym__minus_before_base, sym__plus_before_base]"

definition plain_tokens_0_1 :: "TSSymbol list" where
  "plain_tokens_0_1 =
    [ts_builtin_sym_end, sym_identifier, aux_sym_ERR_implements_before_extends_token1,
     aux_sym_ERR_extends_multiple_times_token1, aux_sym_ERR_doubled_qualifier_token1,
     aux_sym_ERR_doubled_qualifier_token2, aux_sym_ERR_doubled_retain_token1,
     aux_sym_ERR_invalid_edge_qualifier_token1, anon_sym_COLON_EQ, anon_sym_EQ, anon_sym_COLON,
     anon_sym_EQ_GT, aux_sym_ERR_unexpected_this_in_path_token1,
     aux_sym_ERR_unexpected_super_in_path_token1, anon_sym_COMMA,
     aux_sym_ERR_single_after_interval_token1, aux_sym_ERR_interval_after_priority_token1,
     anon_sym_LBRACE, anon_sym_extern, anon_sym_RBRACE, anon_sym_LPAREN, anon_sym_params,
     anon_sym_RPAREN, anon_sym_result, anon_sym_wasm, sym_pragma_string, anon_sym_warn,
     anon_sym_info, anon_sym_allow, aux_sym_test_pragma_token1, aux_sym_once_pragma_token1,
     aux_sym_must_call_pragma_token1, aux_sym_export_pragma_token1, anon_sym_POUND,
     sym__explicit_signed_int, sym_binary_int, sym_octal_int, sym__explicit_signed_real,
     aux_sym_bool_literal_with_string_token1, aux_sym_bool_literal_with_string_token2,
     aux_sym_bool_literal_with_string_token3, anon_sym_0, anon_sym_1, sym_d_byte_char_str,
     aux_sym_time_token1, anon_sym_PLUS, anon_sym_DASH, aux_sym_sign_int_type_name_token1,
     aux_sym_sign_int_type_name_token2, aux_sym_sign_int_type_name_token3,
     aux_sym_sign_int_type_name_token4, aux_sym_unsign_int_type_name_token1,
     aux_sym_unsign_int_type_name_token2, aux_sym_unsign_int_type_name_token3,
     aux_sym_unsign_int_type_name_token4, aux_sym_real_type_name_token1,
     aux_sym_real_type_name_token2, aux_sym_string_name_token1, anon_sym_LBRACK, anon_sym_RBRACK,
     aux_sym_char_name_token1, sym_time_type_name, sym_l_time_type_name, sym_date_type_name,
     sym_l_date_type_name, sym_tod_type_name, sym_ltod_type_name, sym_dt_type_name,
     sym_l_dt_type_name, aux_sym_bit_str_type_name_token1, aux_sym_multibits_type_name_token1,
     aux_sym_multibits_type_name_token2, aux_sym_multibits_type_name_token3,
     aux_sym_multibits_type_name_token4, aux_sym_data_type_decl_token1, anon_sym_SEMI,
     aux_sym_data_type_decl_token2, anon_sym_DOT_DOT, aux_sym_array_type_spec_token1,
     aux_sym_array_type_spec_token2, aux_sym_struct_type_spec_token1,
     aux_sym_struct_type_spec_token2, aux_sym_struct_type_spec_token3,
     aux_sym_relative_located_at_token1, anon_sym_PERCENT, anon_sym_STAR, anon_sym_DOT,
     aux_sym_ref_type_spec_token1, aux_sym_ref_value_token1, aux_sym_ref_addr_token1,
     anon_sym_CARET, aux_sym_input_decls_token1, aux_sym_input_decls_token2,
     aux_sym_edge_decl_token1, aux_sym_edge_decl_token2, aux_sym_output_decls_token1,
     aux_sym_in_out_decls_token1, aux_sym_var_decls_token1, aux_sym_temp_var_decls_token1,
     aux_sym_external_var_decls_token1, aux_sym_global_var_decls_token1, aux_sym_func_decl_token1,
     aux_sym_func_decl_token2, aux_sym_fb_decl_token1, aux_sym_fb_decl_token2,
     aux_sym_fb_decl_token3, aux_sym_fb_decl_token4, aux_sym_method_decl_token1,
     aux_sym_method_decl_token2, aux_sym_method_decl_token3, aux_sym_class_decl_token1,
     aux_sym_class_decl_token2, aux_sym_interface_decl_token1, aux_sym_interface_decl_token2,
     aux_sym_access_spec_token1, aux_sym_access_spec_token2, aux_sym_access_spec_token3,
     aux_sym_access_spec_token4, aux_sym_prog_decl_token1, aux_sym_prog_decl_token2,
     aux_sym_prog_access_decls_token1, aux_sym_initial_step_token1, aux_sym_initial_step_token2,
     aux_sym_step_token1, anon_sym_N, anon_sym_R, anon_sym_S, anon_sym_P, anon_sym_L, anon_sym_D,
     aux_sym_action_qualifier_token1, aux_sym_action_qualifier_token2,
     aux_sym_action_qualifier_token3, aux_sym_transition_token1, aux_sym_transition_token2,
     aux_sym_transition_token3, aux_sym_transition_token4, aux_sym_transition_token5,
     aux_sym_action_token1, aux_sym_action_token2, aux_sym_config_decl_token1,
     aux_sym_config_decl_token2, aux_sym_resource_decl_token1, aux_sym_resource_decl_token2,
     aux_sym_resource_decl_token3, aux_sym_access_direction_token1, aux_sym_access_direction_token2,
     aux_sym_task_config_token1, aux_sym_prog_config_token1, aux_sym_config_init_token1,
     aux_sym_namespace_decl_token1, aux_sym_namespace_decl_token2, aux_sym_using_directive_token1,
     anon_sym_SLASH, anon_sym_STAR_STAR, anon_sym_AMP, anon_sym_PIPE, anon_sym_LT_GT, anon_sym_LT,
     anon_sym_GT, anon_sym_LT_EQ, anon_sym_GT_EQ, aux_sym_fold_operator_token1,
     aux_sym_fold_operator_token2, aux_sym_or_operator_token1, aux_sym_xor_operator_token1,
     aux_sym_and_operator_token1, aux_sym_mult_token1, aux_sym_unary_token1, aux_sym__stmt_token1,
     aux_sym__stmt_token2, aux_sym__stmt_token3, aux_sym_if_stmt_token1, aux_sym_if_stmt_token2,
     aux_sym_if_stmt_token3, aux_sym_if_stmt_token4, aux_sym_else_if_stmt_token1,
     aux_sym_case_stmt_token1, aux_sym_case_stmt_token2, aux_sym_for_stmt_token1,
     aux_sym_for_stmt_token2, aux_sym_for_stmt_token3, aux_sym_for_list_token1,
     aux_sym_while_stmt_token1, aux_sym_while_stmt_token2, aux_sym_repeat_stmt_token1,
     aux_sym_repeat_stmt_token2, aux_sym_repeat_stmt_token3, aux_sym_raise_stmt_token1,
     aux_sym_try_stmt_token1, aux_sym_try_stmt_token2, aux_sym_catch_clause_token1,
     aux_sym_finally_clause_token1, aux_sym_ERR_end_try_spelling_token1, anon_sym_LPAREN_RPAREN,
     anon_sym_I, anon_sym_Q, anon_sym_M, sym_ld_rung, sym_fbd_network]"

definition tokens_0_1 :: "TSSymbol list" where
  "tokens_0_1 = extra_tokens @ sign_tokens @ plain_tokens_0_1"

definition plain_tokens_1_1 :: "TSSymbol list" where
  "plain_tokens_1_1 =
    [sym_identifier, anon_sym_EQ, aux_sym_ERR_unexpected_this_in_path_token1,
     aux_sym_ERR_unexpected_super_in_path_token1, anon_sym_LBRACE, anon_sym_LPAREN,
     aux_sym_test_pragma_token1, aux_sym_once_pragma_token1, aux_sym_must_call_pragma_token1,
     aux_sym_export_pragma_token1, anon_sym_POUND, sym_unsigned_int, sym__explicit_signed_int,
     sym_binary_int, sym_octal_int, sym_hex_int, sym__explicit_signed_real, sym_real_value,
     aux_sym_bool_literal_with_string_token1, aux_sym_bool_literal_with_string_token2,
     aux_sym_bool_literal_with_string_token3, sym_s_byte_char_str, sym_d_byte_char_str,
     aux_sym_time_token1, anon_sym_PLUS, anon_sym_DASH, aux_sym_ltime_token1, aux_sym_tod_token1,
     aux_sym_ltod_token1, aux_sym_short_date_token1, aux_sym_long_date_token1,
     aux_sym_short_date_and_time_token1, aux_sym_long_date_and_time_token1,
     aux_sym_sign_int_type_name_token1, aux_sym_sign_int_type_name_token2,
     aux_sym_sign_int_type_name_token3, aux_sym_sign_int_type_name_token4,
     aux_sym_unsign_int_type_name_token1, aux_sym_unsign_int_type_name_token2,
     aux_sym_unsign_int_type_name_token3, aux_sym_unsign_int_type_name_token4,
     aux_sym_real_type_name_token1, aux_sym_real_type_name_token2, aux_sym_string_name_token1,
     anon_sym_LBRACK, aux_sym_char_name_token1, aux_sym_multibits_type_name_token1,
     aux_sym_multibits_type_name_token2, aux_sym_multibits_type_name_token3,
     aux_sym_multibits_type_name_token4, anon_sym_SEMI, anon_sym_PERCENT, anon_sym_STAR,
     anon_sym_DOT, aux_sym_ref_value_token1, aux_sym_ref_addr_token1, anon_sym_CARET,
     anon_sym_DOT_DOT_DOT, aux_sym_method_decl_token1, anon_sym_SLASH, anon_sym_STAR_STAR,
     anon_sym_AMP, anon_sym_LT_GT, anon_sym_LT, anon_sym_GT, anon_sym_LT_EQ, anon_sym_GT_EQ,
     aux_sym_or_operator_token1, aux_sym_xor_operator_token1, aux_sym_and_operator_token1,
     aux_sym_mult_token1, aux_sym_unary_token1, aux_sym__stmt_token1, aux_sym__stmt_token2,
     aux_sym__stmt_token3, aux_sym_if_stmt_token1, aux_sym_if_stmt_token3, aux_sym_case_stmt_token1,
     aux_sym_case_stmt_token2, aux_sym_for_stmt_token1, aux_sym_while_stmt_token1,
     aux_sym_repeat_stmt_token1, aux_sym_raise_stmt_token1, aux_sym_try_stmt_token1,
     aux_sym_try_stmt_token2, aux_sym_catch_clause_token1, aux_sym_finally_clause_token1,
     anon_sym_LPAREN_RPAREN]"

definition tokens_1_1 :: "TSSymbol list" where
  "tokens_1_1 = extra_tokens @ sign_tokens @ plain_tokens_1_1"

definition plain_tokens_2_1 :: "TSSymbol list" where
  "plain_tokens_2_1 =
    [sym_identifier, anon_sym_EQ, aux_sym_ERR_unexpected_this_in_path_token1,
     aux_sym_ERR_unexpected_super_in_path_token1, anon_sym_LBRACE, anon_sym_LPAREN,
     aux_sym_test_pragma_token1, aux_sym_once_pragma_token1, aux_sym_must_call_pragma_token1,
     aux_sym_export_pragma_token1, anon_sym_POUND, sym_unsigned_int, sym__explicit_signed_int,
     sym_binary_int, sym_octal_int, sym_hex_int, sym__explicit_signed_real, sym_real_value,
     aux_sym_bool_literal_with_string_token1, aux_sym_bool_literal_with_string_token2,
     aux_sym_bool_literal_with_string_token3, sym_s_byte_char_str, sym_d_byte_char_str,
     aux_sym_time_token1, anon_sym_PLUS, anon_sym_DASH, aux_sym_ltime_token1, aux_sym_tod_token1,
     aux_sym_ltod_token1, aux_sym_short_date_token1, aux_sym_long_date_token1,
     aux_sym_short_date_and_time_token1, aux_sym_long_date_and_time_token1,
     aux_sym_sign_int_type_name_token1, aux_sym_sign_int_type_name_token2,
     aux_sym_sign_int_type_name_token3, aux_sym_sign_int_type_name_token4,
     aux_sym_unsign_int_type_name_token1, aux_sym_unsign_int_type_name_token2,
     aux_sym_unsign_int_type_name_token3, aux_sym_unsign_int_type_name_token4,
     aux_sym_real_type_name_token1, aux_sym_real_type_name_token2, aux_sym_string_name_token1,
     anon_sym_LBRACK, aux_sym_char_name_token1, aux_sym_multibits_type_name_token1,
     aux_sym_multibits_type_name_token2, aux_sym_multibits_type_name_token3,
     aux_sym_multibits_type_name_token4, anon_sym_SEMI, anon_sym_PERCENT, anon_sym_STAR,
     anon_sym_DOT, aux_sym_ref_value_token1, aux_sym_ref_addr_token1, anon_sym_CARET,
     anon_sym_DOT_DOT_DOT, aux_sym_method_decl_token1, anon_sym_SLASH, anon_sym_STAR_STAR,
     anon_sym_AMP, anon_sym_LT_GT, anon_sym_LT, anon_sym_GT, anon_sym_LT_EQ, anon_sym_GT_EQ,
     aux_sym_or_operator_token1, aux_sym_xor_operator_token1, aux_sym_and_operator_token1,
     aux_sym_mult_token1, aux_sym_unary_token1, aux_sym__stmt_token1, aux_sym__stmt_token2,
     aux_sym__stmt_token3, aux_sym_if_stmt_token1, aux_sym_if_stmt_token3, aux_sym_case_stmt_token1,
     aux_sym_case_stmt_token2, aux_sym_for_stmt_token1, aux_sym_while_stmt_token1,
     aux_sym_repeat_stmt_token1, aux_sym_raise_stmt_token1, aux_sym_try_stmt_token1,
     aux_sym_try_stmt_token2, aux_sym_catch_clause_token1, aux_sym_finally_clause_token1]"

definition tokens_2_1 :: "TSSymbol list" where
  "tokens_2_1 = extra_tokens @ sign_tokens @ plain_tokens_2_1"

definition plain_tokens_4_1 :: "TSSymbol list" where
  "plain_tokens_4_1 =
    [sym_identifier, aux_sym_ERR_unexpected_this_in_path_token1,
     aux_sym_ERR_unexpected_super_in_path_token1, anon_sym_LBRACE, anon_sym_LPAREN, anon_sym_RPAREN,
     aux_sym_test_pragma_token1, aux_sym_once_pragma_token1, aux_sym_must_call_pragma_token1,
     aux_sym_export_pragma_token1, sym_unsigned_int, sym__explicit_signed_int, sym_binary_int,
     sym_octal_int, sym_hex_int, sym__explicit_signed_real, sym_real_value,
     aux_sym_bool_literal_with_string_token1, aux_sym_bool_literal_with_string_token2,
     aux_sym_bool_literal_with_string_token3, sym_s_byte_char_str, sym_d_byte_char_str,
     aux_sym_time_token1, anon_sym_PLUS, anon_sym_DASH, aux_sym_ltime_token1, aux_sym_tod_token1,
     aux_sym_ltod_token1, aux_sym_short_date_token1, aux_sym_long_date_token1,
     aux_sym_short_date_and_time_token1, aux_sym_long_date_and_time_token1,
     aux_sym_sign_int_type_name_token1, aux_sym_sign_int_type_name_token2,
     aux_sym_sign_int_type_name_token3, aux_sym_sign_int_type_name_token4,
     aux_sym_unsign_int_type_name_token1, aux_sym_unsign_int_type_name_token2,
     aux_sym_unsign_int_type_name_token3, aux_sym_unsign_int_type_name_token4,
     aux_sym_real_type_name_token1, aux_sym_real_type_name_token2, aux_sym_string_name_token1,
     anon_sym_LBRACK, anon_sym_RBRACK, aux_sym_char_name_token1, aux_sym_multibits_type_name_token1,
     aux_sym_multibits_type_name_token2, aux_sym_multibits_type_name_token3,
     aux_sym_multibits_type_name_token4, anon_sym_SEMI, anon_sym_PERCENT, anon_sym_STAR,
     aux_sym_ref_value_token1, aux_sym_ref_addr_token1, anon_sym_DOT_DOT_DOT,
     aux_sym_func_decl_token2, aux_sym_fb_decl_token4, aux_sym_method_decl_token1,
     aux_sym_method_decl_token3, aux_sym_prog_decl_token2, aux_sym_action_token2,
     aux_sym_unary_token1, aux_sym__stmt_token1, aux_sym__stmt_token2, aux_sym__stmt_token3,
     aux_sym_if_stmt_token1, aux_sym_if_stmt_token3, aux_sym_if_stmt_token4,
     aux_sym_else_if_stmt_token1, aux_sym_case_stmt_token1, aux_sym_case_stmt_token2,
     aux_sym_for_stmt_token1, aux_sym_for_stmt_token3, aux_sym_while_stmt_token1,
     aux_sym_while_stmt_token2, aux_sym_repeat_stmt_token1, aux_sym_repeat_stmt_token2,
     aux_sym_raise_stmt_token1, aux_sym_try_stmt_token1, aux_sym_try_stmt_token2,
     aux_sym_catch_clause_token1, aux_sym_finally_clause_token1, aux_sym_ERR_end_try_spelling_token1]"

definition tokens_4_1 :: "TSSymbol list" where
  "tokens_4_1 = extra_tokens @ sign_tokens @ plain_tokens_4_1"

definition plain_tokens_4_2 :: "TSSymbol list" where
  "plain_tokens_4_2 =
    [sym_identifier, aux_sym_ERR_unexpected_this_in_path_token1,
     aux_sym_ERR_unexpected_super_in_path_token1, sym_unsigned_int, sym__explicit_signed_int,
     sym_binary_int, sym_octal_int, sym_hex_int, sym__explicit_signed_real, sym_real_value,
     aux_sym_bool_literal_with_string_token1, aux_sym_bool_literal_with_string_token2,
     aux_sym_bool_literal_with_string_token3, sym_s_byte_char_str, sym_d_byte_char_str,
     aux_sym_time_token1, aux_sym_ltime_token1, aux_sym_tod_token1, aux_sym_ltod_token1,
     aux_sym_short_date_token1, aux_sym_long_date_token1, aux_sym_short_date_and_time_token1,
     aux_sym_long_date_and_time_token1, aux_sym_sign_int_type_name_token1,
     aux_sym_sign_int_type_name_token2, aux_sym_sign_int_type_name_token3,
     aux_sym_sign_int_type_name_token4, aux_sym_unsign_int_type_name_token1,
     aux_sym_unsign_int_type_name_token2, aux_sym_unsign_int_type_name_token3,
     aux_sym_unsign_int_type_name_token4, aux_sym_real_type_name_token1,
     aux_sym_real_type_name_token2, aux_sym_string_name_token1, aux_sym_char_name_token1,
     aux_sym_multibits_type_name_token1, aux_sym_multibits_type_name_token2,
     aux_sym_multibits_type_name_token3, aux_sym_multibits_type_name_token4, anon_sym_PERCENT]"

definition tokens_4_2 :: "TSSymbol list" where
  "tokens_4_2 = extra_tokens @ plain_tokens_4_2"

definition plain_tokens_63_2 :: "TSSymbol list" where
  "plain_tokens_63_2 =
    [ts_builtin_sym_end, sym_identifier, aux_sym_ERR_implements_before_extends_token1,
     aux_sym_ERR_extends_multiple_times_token1, anon_sym_COLON,
     aux_sym_ERR_unexpected_this_in_path_token1, aux_sym_ERR_unexpected_super_in_path_token1,
     anon_sym_LBRACE, aux_sym_test_pragma_token1, aux_sym_once_pragma_token1,
     aux_sym_must_call_pragma_token1, aux_sym_export_pragma_token1, aux_sym_data_type_decl_token1,
     anon_sym_SEMI, anon_sym_PERCENT, aux_sym_input_decls_token1, aux_sym_output_decls_token1,
     aux_sym_in_out_decls_token1, aux_sym_var_decls_token1, aux_sym_temp_var_decls_token1,
     aux_sym_external_var_decls_token1, aux_sym_global_var_decls_token1, aux_sym_func_decl_token1,
     aux_sym_func_decl_token2, aux_sym_fb_decl_token1, aux_sym_fb_decl_token4,
     aux_sym_method_decl_token1, aux_sym_method_decl_token3, aux_sym_class_decl_token1,
     aux_sym_interface_decl_token1, aux_sym_prog_decl_token1, aux_sym_prog_decl_token2,
     aux_sym_prog_access_decls_token1, aux_sym_initial_step_token1, aux_sym_config_decl_token1,
     aux_sym_config_init_token1, aux_sym_namespace_decl_token1, aux_sym_using_directive_token1,
     aux_sym__stmt_token1, aux_sym__stmt_token2, aux_sym__stmt_token3, aux_sym_if_stmt_token1,
     aux_sym_case_stmt_token1, aux_sym_for_stmt_token1, aux_sym_while_stmt_token1,
     aux_sym_repeat_stmt_token1, aux_sym_raise_stmt_token1, aux_sym_try_stmt_token1,
     aux_sym_try_stmt_token2, aux_sym_catch_clause_token1, aux_sym_finally_clause_token1,
     sym_ld_rung, sym_fbd_network]"

definition tokens_63_2 :: "TSSymbol list" where
  "tokens_63_2 = extra_tokens @ plain_tokens_63_2"

section \<open>Rows\<close>

text \<open>
  The indices of actions in the rows, in parts as those of the table of actions, where a group starts at
  each.
\<close>

definition row_actions_1 :: "nat list" where
  "row_actions_1 =
    [1, 3, 5, 7, 9, 11, 13, 15, 17, 19, 21, 23, 25, 27, 29, 31, 33, 35, 37, 39, 41, 43, 45, 47, 49,
     51, 53, 55, 57, 59, 61, 63, 65, 67, 69, 71, 73, 75, 77, 79, 81, 83, 85, 87, 89, 91, 93, 95, 97,
     99, 101, 103, 105, 107, 109, 111, 113, 115, 117, 119, 121, 123, 125, 127, 129, 131, 133, 135,
     137, 139, 141, 143, 145, 147, 149, 151, 153, 155, 157, 159, 161, 163, 165, 167, 169, 171, 173,
     175, 177, 179, 182, 185, 188, 191, 194, 197, 200, 203, 206, 209, 212, 215, 218, 221, 224, 227,
     230, 233, 236, 239, 242, 245, 248, 251, 254, 257, 260, 263, 266, 269, 271, 274, 276, 278, 280,
     282, 284, 286, 288, 290, 292, 294, 296, 298, 300, 302, 304, 306, 308, 310, 312, 314, 316, 318,
     320, 322, 324, 326, 328]"

definition row_actions_2 :: "nat list" where
  "row_actions_2 =
    [330, 332, 334, 336, 338, 340, 342, 344, 346, 348, 350, 352, 354, 356, 358, 360, 362, 364, 366,
     368, 370, 372, 374, 376, 378, 380, 382, 384, 386, 388, 390, 392, 394, 396, 398, 400, 402, 404,
     406, 408, 410, 412, 414, 416, 418, 420, 422, 424, 426, 428, 430, 432, 434, 436, 438, 440, 442,
     444, 446, 448, 450, 452, 454, 456, 458, 460, 462, 464, 466, 468, 470, 472, 474, 476, 478, 480,
     482, 484, 486, 488, 490, 492, 494, 496, 498, 500, 502, 504, 506, 508, 510, 512, 514, 516, 518,
     520, 522, 524, 526, 528, 530, 532, 534, 536, 538, 540, 542, 544, 546, 548, 550, 552, 554, 556,
     558, 560, 562, 564, 566, 568, 570, 572, 574, 576, 578, 580, 582, 584, 586, 588, 590, 592, 594,
     596, 598, 600, 602, 604, 606, 608, 610, 612, 614, 616, 618, 620, 623, 626, 629, 631]"

definition row_actions_3 :: "nat list" where
  "row_actions_3 =
    [633, 635, 637, 640, 642, 644, 646, 648, 650, 652, 654, 656, 658, 660, 662, 664, 666, 669, 672,
     675, 678, 680, 683, 686, 689, 692, 694, 697, 700, 703, 706, 709, 712, 715, 718, 721, 724, 727,
     730, 733, 736, 739, 741, 743, 745, 748, 750, 752, 754, 756, 758, 760, 762, 764, 766, 768, 770,
     772, 774, 776, 778, 780, 782, 784, 786, 788, 790, 792, 794, 796, 798, 800, 802, 804, 806, 808,
     810, 812, 814, 816, 818, 820, 822, 824, 826, 828, 830, 832, 834, 836, 838, 840, 842, 844, 846,
     848, 850, 852, 854, 856, 858, 860, 862, 864, 866, 868, 870, 872, 874, 876, 878, 880, 882, 884,
     886, 888, 890, 892, 894, 896, 898, 900, 902, 904, 906, 908, 910, 912, 914, 916, 918, 920, 922,
     924, 926, 928, 930, 932, 934, 936, 938, 940, 942, 944, 946, 948, 950, 952, 954, 956]"

definition row_actions_4 :: "nat list" where
  "row_actions_4 =
    [958, 960, 962, 964, 966, 968, 970, 972, 974, 976, 978, 980, 982, 984, 986, 988, 990, 992, 994,
     996, 998, 1000, 1002, 1004, 1006, 1008, 1010, 1012, 1014, 1016, 1018, 1020, 1022, 1024, 1026,
     1028, 1030, 1032, 1034, 1036, 1038, 1040, 1042, 1044, 1046, 1048, 1050, 1052, 1054, 1056, 1058,
     1060, 1062, 1064, 1066, 1068, 1070, 1072, 1074, 1076, 1078, 1080, 1082, 1084, 1086, 1088, 1090,
     1092, 1094, 1096, 1098, 1100, 1102, 1104, 1106, 1108, 1110, 1112, 1114, 1116, 1118, 1120, 1122,
     1124, 1126, 1128, 1130, 1132, 1134, 1136, 1138, 1140, 1142, 1144, 1146, 1148, 1150, 1152, 1154,
     1156, 1158, 1160, 1162, 1164, 1166, 1168, 1170, 1172, 1174, 1176, 1178, 1180, 1182, 1184, 1186,
     1188, 1190, 1192, 1194, 1196, 1198, 1200, 1202, 1204, 1206, 1208, 1210, 1212, 1214, 1216, 1218,
     1220, 1222, 1224, 1226, 1228, 1230, 1232, 1234, 1236, 1238, 1240, 1242, 1244, 1246, 1248, 1250,
     1252, 1254, 1256]"

definition row_actions_5 :: "nat list" where
  "row_actions_5 =
    [1258, 1260, 1262, 1264, 1266, 1268, 1270, 1272, 1274, 1276, 1278, 1280, 1282, 1284, 1286, 1288,
     1290, 1292, 1294, 1296, 1298, 1300, 1302, 1304, 1306, 1308, 1310, 1312, 1314, 1316, 1318, 1320,
     1322, 1324, 1326, 1328, 1330, 1332, 1334, 1336, 1338, 1340, 1342, 1344, 1346, 1348, 1350, 1352,
     1354, 1356, 1358, 1360, 1362, 1364, 1366, 1368, 1370, 1372, 1374, 1376, 1378, 1380, 1382, 1384,
     1386, 1388, 1390, 1392, 1394, 1396, 1398, 1400, 1402, 1404, 1406, 1408, 1410, 1412, 1414, 1416,
     1418, 1420, 1422, 1424, 1426, 1428, 1430, 1432, 1434, 1436, 1438, 1440, 1442, 1444, 1446, 1448,
     1450, 1452, 1454, 1456, 1458, 1460, 1462, 1464, 1466, 1468, 1470, 1472, 1474, 1476, 1478, 1480,
     1482, 1484, 1486, 1488, 1490, 1492, 1494, 1496, 1498, 1500, 1502, 1504, 1506, 1508, 1510, 1512,
     1514, 1516, 1518, 1520, 1522, 1524, 1526, 1528, 1530, 1532, 1534, 1536, 1538, 1540, 1542, 1544,
     1546, 1548, 1550, 1552, 1554, 1556]"

definition row_actions_6 :: "nat list" where
  "row_actions_6 =
    [1558, 1560, 1562, 1564, 1566, 1568, 1570, 1572, 1574, 1576, 1578, 1580, 1582, 1584, 1586, 1588,
     1590, 1592, 1594, 1596, 1598, 1600, 1602, 1604, 1606, 1608, 1610, 1612, 1614, 1616, 1618, 1620,
     1622, 1624, 1626, 1628, 1630, 1632, 1634, 1636, 1638, 1640, 1642, 1644, 1646, 1648, 1650, 1652,
     1654, 1656, 1658, 1660, 1662, 1664, 1666, 1668, 1670, 1672, 1674, 1676, 1678, 1680, 1682, 1684,
     1686, 1688, 1690, 1692, 1694, 1696, 1698, 1700, 1702, 1704, 1706, 1708, 1710, 1712, 1714, 1716,
     1718, 1720, 1722, 1724, 1726, 1728, 1730, 1732, 1734, 1736, 1738, 1740, 1742, 1744, 1746, 1748,
     1750, 1752, 1754, 1756, 1758, 1760, 1762, 1764, 1766, 1768, 1770, 1772, 1774, 1776, 1778, 1780,
     1782, 1784, 1786, 1788, 1790, 1792, 1794, 1796, 1798, 1800, 1802, 1804, 1806, 1808, 1810, 1812,
     1814, 1816, 1818, 1820, 1822, 1824, 1826, 1828, 1830, 1832, 1834, 1836, 1838, 1840, 1842, 1844,
     1846, 1848, 1850, 1852, 1854, 1856]"

definition row_actions_7 :: "nat list" where
  "row_actions_7 =
    [1858, 1860, 1862, 1864, 1866, 1868, 1870, 1872, 1874, 1876, 1878, 1880, 1882, 1884, 1886, 1888,
     1890, 1892, 1894, 1896, 1898, 1900, 1902, 1904, 1906, 1908, 1910, 1912, 1914, 1916, 1918, 1920,
     1922, 1924, 1926, 1928, 1930, 1932, 1934, 1936, 1938, 1940, 1942, 1944, 1946, 1948, 1950, 1952,
     1954, 1956, 1958, 1960, 1962, 1964, 1966, 1968, 1970, 1972, 1974, 1976, 1978, 1980, 1982, 1984,
     1986, 1988, 1990, 1992, 1994, 1996, 1998, 2000, 2002, 2004, 2006, 2008, 2010, 2012, 2014, 2016,
     2018, 2020, 2022, 2024, 2026, 2028, 2030, 2032, 2034, 2036, 2038, 2040, 2042, 2044, 2046, 2048,
     2050, 2052, 2054, 2056, 2058, 2060, 2062, 2064, 2066, 2068, 2070, 2072, 2074, 2076, 2078, 2080,
     2082, 2084, 2086, 2088, 2090, 2092, 2094, 2096, 2098, 2100, 2102, 2104, 2106, 2108, 2110, 2112,
     2114, 2116, 2118, 2120, 2122, 2124, 2126, 2128, 2130, 2132, 2134, 2136, 2138, 2140, 2142, 2144,
     2146, 2148, 2150, 2152, 2154, 2156]"

definition row_actions_8 :: "nat list" where
  "row_actions_8 =
    [2158, 2160, 2162, 2164, 2166, 2168, 2170, 2172, 2174, 2176, 2178, 2180, 2182, 2184, 2186, 2188,
     2190, 2192, 2194, 2196, 2198, 2200, 2202, 2204, 2206, 2208, 2210, 2212, 2214, 2216, 2218, 2220,
     2222, 2224, 2226, 2228, 2230, 2232, 2234, 2236, 2238, 2240, 2242, 2244, 2246, 2248, 2250, 2252,
     2254, 2256, 2258, 2260, 2262, 2264, 2266, 2268, 2270, 2272, 2274, 2276, 2278, 2280, 2282, 2284,
     2286, 2288, 2290, 2292, 2294, 2296, 2298, 2300, 2302, 2304, 2306, 2308, 2310, 2312, 2314, 2316,
     2318, 2320, 2322, 2324, 2326, 2328, 2330, 2332, 2334, 2336, 2338, 2340, 2342, 2344, 2346, 2348,
     2350, 2352, 2354, 2356, 2358, 2360, 2362, 2364, 2366, 2368, 2370, 2372, 2374, 2376, 2378, 2380,
     2382, 2384, 2386, 2388, 2390, 2392, 2394, 2396, 2398, 2400, 2402, 2404, 2406, 2408, 2410, 2412,
     2414, 2416, 2418, 2420, 2422, 2424, 2426, 2428, 2430, 2432, 2434, 2436, 2438, 2440, 2442, 2444,
     2446, 2448, 2450, 2452, 2454, 2456]"

definition row_actions_9 :: "nat list" where
  "row_actions_9 =
    [2458, 2460, 2462, 2464, 2466, 2468, 2470, 2472, 2474, 2476, 2478, 2480, 2482, 2484, 2486, 2488,
     2490, 2492, 2494, 2496, 2498, 2500, 2502, 2504, 2506, 2508, 2510, 2512, 2514, 2516, 2518, 2520,
     2522, 2524, 2526, 2528, 2530, 2532, 2534, 2536, 2538, 2540, 2542, 2544, 2546, 2548, 2550, 2552,
     2554, 2556, 2558, 2560, 2562, 2564, 2566, 2568, 2570, 2572, 2574, 2576, 2578, 2580, 2582, 2584,
     2586, 2588, 2590, 2592, 2594, 2596, 2598, 2600, 2602, 2604, 2606, 2608, 2610, 2612, 2614, 2616,
     2618, 2620, 2622, 2624, 2626, 2628, 2630, 2632, 2634, 2636, 2638, 2640, 2642, 2644, 2646, 2648,
     2650, 2652, 2654, 2656, 2658, 2660, 2662, 2664, 2666, 2668, 2670, 2672, 2674, 2676, 2678, 2680,
     2682, 2684, 2687, 2689, 2691, 2693, 2695, 2697, 2699, 2701, 2704, 2706, 2708, 2710, 2712, 2715,
     2717, 2719, 2722, 2724, 2726, 2728, 2730, 2732, 2734, 2736, 2738, 2740, 2742, 2744, 2746, 2748,
     2750, 2752, 2754, 2756, 2758, 2760]"

definition row_actions_10 :: "nat list" where
  "row_actions_10 =
    [2762, 2764, 2766, 2768, 2770, 2772, 2774, 2776, 2778, 2780, 2782, 2784, 2786, 2788, 2790, 2792,
     2794, 2796, 2798, 2800, 2802, 2804, 2806, 2808, 2810, 2812, 2814, 2816, 2818, 2820, 2822, 2824,
     2826, 2828, 2830, 2833, 2835, 2837, 2839, 2841, 2844, 2846, 2848, 2850, 2852, 2854, 2856, 2858,
     2860, 2862, 2864, 2866, 2868, 2870, 2872, 2875, 2877, 2879, 2881, 2883, 2885, 2888, 2890, 2892,
     2894, 2896, 2898, 2900, 2902, 2904, 2906, 2908, 2910, 2912, 2914, 2916, 2918, 2920, 2922, 2924,
     2926, 2928, 2930, 2932, 2934, 2936, 2938, 2940, 2942, 2944, 2946, 2948, 2950, 2952, 2954, 2956,
     2958, 2960, 2962, 2964, 2966, 2968, 2970, 2972, 2974, 2976, 2978, 2980, 2982, 2984, 2986, 2988,
     2990, 2992, 2994, 2996, 2998, 3000, 3002, 3004, 3006, 3008, 3010, 3012, 3014, 3016, 3018, 3020,
     3022, 3024, 3026, 3028, 3030, 3032, 3034, 3036, 3038, 3040, 3042, 3044, 3046, 3048, 3050, 3052,
     3054, 3056, 3058, 3060, 3062, 3064]"

definition row_actions_11 :: "nat list" where
  "row_actions_11 =
    [3066, 3068, 3070, 3072, 3074, 3076, 3078, 3080, 3082, 3084, 3086, 3088, 3090, 3092, 3094, 3096,
     3098, 3100, 3102, 3104, 3106, 3108, 3110, 3112, 3114, 3116, 3118, 3120, 3122, 3124, 3126, 3128,
     3130, 3132, 3134, 3136, 3138, 3140, 3142, 3144, 3146, 3148, 3150, 3152, 3154, 3156, 3158, 3160,
     3162, 3164, 3166, 3168, 3170, 3172, 3174, 3176, 3178, 3180, 3182, 3184, 3186, 3188, 3190, 3192,
     3194, 3196, 3198, 3200, 3202, 3204, 3206, 3208, 3210, 3212, 3214, 3216, 3218, 3220, 3222, 3224,
     3226, 3228, 3230, 3232, 3234, 3236, 3238, 3240, 3242, 3244, 3246, 3248, 3250, 3252, 3254, 3256,
     3258, 3260, 3262, 3264, 3266, 3268, 3270, 3272, 3274, 3276, 3278, 3280, 3282, 3284, 3286, 3288,
     3290, 3292, 3294, 3296, 3298, 3300, 3302, 3304, 3306, 3308, 3310, 3312, 3314, 3316, 3318, 3320,
     3322, 3324, 3326, 3328, 3330, 3332, 3334, 3336, 3338, 3340, 3342, 3344, 3346, 3348, 3350, 3352,
     3354, 3356, 3358, 3360, 3362, 3364]"

definition row_actions_12 :: "nat list" where
  "row_actions_12 =
    [3366, 3368, 3370, 3372, 3374, 3376, 3378, 3380, 3382]"

definition action_index :: "nat \<Rightarrow> bool" where
  "action_index v \<longleftrightarrow>
     v \<in> set (row_actions_1 @ row_actions_2 @ row_actions_3 @ row_actions_4 @ row_actions_5 @
       row_actions_6 @ row_actions_7 @ row_actions_8 @ row_actions_9 @ row_actions_10 @
       row_actions_11 @ row_actions_12)"

text \<open>A state to go to. The bound is the number of states.\<close>

definition goto_ok :: "nat \<Rightarrow> bool" where
  "goto_ok v \<longleftrightarrow> v < 10545"

text \<open>A cell of a token is one its mode may have and starts actions: those at 3, to shift an extra, for a comment.\<close>

definition cell_ok :: "TSSymbol list \<Rightarrow> TSSymbol \<Rightarrow> nat \<Rightarrow> bool" where
  "cell_ok ts y v \<longleftrightarrow>
     (if y < TOKEN_COUNT then
        y \<in> set ts \<and> action_index v \<and> (y \<in> set extra_tokens \<longrightarrow> v = 3)
      else goto_ok v)"

text \<open>Counts the four comments and the two signs of a row, in the order of their symbols.\<close>

definition counted_tokens :: "TSSymbol list" where
  "counted_tokens = extra_tokens @ sign_tokens"

lemmas counted_simps = counted_tokens_def extra_tokens_def sign_tokens_def

definition next_extra :: "nat \<Rightarrow> TSSymbol \<Rightarrow> nat" where
  "next_extra k y = (if k < 6 \<and> counted_tokens ! k = y then Suc k else k)"

fun row_scan :: "TSSymbol list \<Rightarrow> nat \<Rightarrow> parse_row \<Rightarrow> nat option" where
  "row_scan ts k [] = Some k"
| "row_scan ts k ((y, v) # cs) =
     (if cell_ok ts y v then row_scan ts (next_extra k y) cs else None)"

text \<open>The cells are only looked at one by one.\<close>

lemma row_scan_weak [cong]: "k = k' \<Longrightarrow> row_scan ts k cs = row_scan ts k' cs"
  by simp

lemma row_scan_cells: "row_scan ts k cs = Some n \<Longrightarrow> list_all (\<lambda>(y, v). cell_ok ts y v) cs"
  by (induction ts k cs rule: row_scan.induct) (auto split: if_splits)

lemma row_scan_counts:
  "row_scan ts k cs = Some n \<Longrightarrow> k \<le> j \<Longrightarrow> j < n \<Longrightarrow>
     counted_tokens ! j \<in> fst ` set cs"
proof (induction ts k cs rule: row_scan.induct)
  case (2 ts k y v cs)
  then have scan: "row_scan ts (next_extra k y) cs = Some n" and ok: "cell_ok ts y v"
    by (auto split: if_splits)
  show ?case
  proof (cases "next_extra k y \<le> j")
    case True
    with "2.IH"[OF ok scan] "2.prems" show ?thesis
      by simp
  next
    case False
    with "2.prems" have "counted_tokens ! j = y"
      by (auto simp: next_extra_def split: if_splits dest: le_antisym)
    then show ?thesis
      by simp
  qed
qed simp

section \<open>One equation for each symbol\<close>

definition row_nonterminals :: "TSSymbol list" where
  "row_nonterminals =
    [sym_source_file, sym_ERR_implements_before_extends, sym_ERR_implements_multiple_times,
     sym_ERR_extends_multiple_times, sym_ERR_assign_func_call, sym_ERR_assign_in_condition,
     sym_ERR_unexpected_this_in_path, sym_ERR_unexpected_super_in_path, sym_ERR_func_call_in_init,
     sym_ERR_fb_variables_after_method, sym_ERR_var_access_not_allowed,
     sym_ERR_var_config_not_allowed, sym_ERR_var_external_not_allowed,
     sym_ERR_var_global_not_allowed, sym_ERR_method_decl_in_body, sym_extern_pragma,
     sym_wasm_pragma, sym_warn_pragma, sym_allow_pragma, sym_test_pragma, sym_once_pragma,
     sym_must_call_pragma, sym_export_pragma, sym_pou_pragma, sym_constant, sym_numeric_literal,
     sym_int_literal, sym_int_kind, sym_signed_int, sym_real_literal, sym_signed_real_value,
     sym_bool_literal, sym_bool_literal_with_string, sym_bool_literal_with_numeric,
     sym_char_literal, sym_char_str, sym_time_literal, sym_duration, sym_time, sym_ltime,
     sym_time_of_day, sym_tod, sym_ltod, sym_date, sym_short_date, sym_long_date, sym_date_and_time,
     sym_short_date_and_time, sym_long_date_and_time, sym_int_type_name, sym_sign_int_type_name,
     sym_unsign_int_type_name, sym_real_type_name, sym_string_type_name, sym_string_name,
     sym_char_name, sym_multibits_type_name, sym_data_type_decl, sym_subrange, sym_enum_value_spec,
     sym_enum_value, sym_ranges, sym_init_elem, sym__array_item, sym_array_init, sym_element_at,
     sym__element_value, sym_array_index_elem, sym_array_values, sym_repeat_values, sym_struct_init,
     sym_struct_elem, sym_direct_variable, sym_ref_value, sym_ref_addr, sym_deref_expression,
     sym_variable, sym_var_access, sym_input_decls, sym_conformand_dimension, sym_output_decls,
     sym_in_out_decls, sym_var_decls, sym_retain_var_decls, sym_temp_var_decls,
     sym_external_var_decls, sym_global_var_decls, sym_loc_partly_var_decl, sym_func_decl,
     sym__func_variables, sym_func_body, sym_fb_decl, sym__fb_variables, sym_fb_input_decls,
     sym_fb_output_decls, sym_no_retain_var_decls, sym_fb_body, sym_method_decl,
     sym__method_decl_variables, sym_class_decl, sym_interface_decl, sym_prog_decl,
     sym_prog_access_decls, sym_SFC, sym_SFC_network, sym_initial_step, sym_config_decl,
     sym_data_source, sym_prog_data_source, sym_config_init, sym_namespace_decl,
     sym_using_directive, sym__expression, sym_fold_expression, sym_pack_element,
     sym__primary_expression, sym_parenthesized_expression, sym_boolean_operator, sym_or_operator,
     sym_xor_operator, sym_and_operator, sym_comparison_operator, sym_eq_operator, sym_ord_operator,
     sym_eq, sym_ord, sym_add_operator, sym_add, sym_mult_operator, sym_mult, sym_power_operator,
     sym_unary_operator, sym_unary, sym_constant_expr, sym_variable_access,
     sym_multibit_part_access, sym_func_call, sym_stmt_list, sym__stmt, sym_assign,
     sym_param_assign, sym_param_assign_input, sym_param_assign_output, sym_if_stmt, sym_case_stmt,
     sym_case_selection, sym_case_body, sym_case_list, sym_case_list_elem, sym_for_stmt,
     sym_while_stmt, sym_repeat_stmt, sym_raise_stmt, sym_try_stmt, sym_ERR_clause_outside_try,
     sym_begin_path_expression, sym_invocation, sym_any_invocation, sym_any_invocation_kind,
     sym_this_invocation, sym_super_invocation, sym_super_body_invocation, sym_path_expression,
     sym_field_expression, sym_index_expression, sym_index_value, sym_ladder_diagram,
     sym_fb_diagram, aux_sym_source_file_repeat1, aux_sym_ERR_fb_variables_after_method_repeat1,
     aux_sym_relative_offset_repeat1, aux_sym_deref_expression_repeat1, aux_sym_func_decl_repeat1,
     aux_sym_func_decl_repeat2, aux_sym_func_decl_repeat3, aux_sym_fb_decl_repeat1,
     aux_sym_fb_decl_repeat2, aux_sym_fb_decl_repeat3, aux_sym_method_decl_repeat1,
     aux_sym_prog_decl_repeat1, aux_sym_SFC_repeat1, aux_sym_stmt_list_repeat1,
     aux_sym_case_stmt_repeat1, aux_sym_ladder_diagram_repeat1, aux_sym_fb_diagram_repeat1]"

definition row_gotos_1 :: "nat list" where
  "row_gotos_1 =
    [10, 12, 16, 60, 61, 69, 70, 71, 72, 94, 95, 97, 98, 100, 101, 102, 104, 107, 108, 109, 110,
     112, 113, 114, 116, 117, 119, 120, 121, 126, 127, 129, 130, 132, 134, 137, 138, 139, 140, 142,
     144, 145, 146, 147, 149, 150, 151, 154, 155, 156, 157, 160, 161, 162, 163, 167, 168, 169, 170,
     172, 173, 176, 177, 178, 179, 181, 182, 184, 185, 187, 188, 189, 191, 192, 193, 194, 195, 196,
     197, 199, 200, 201, 203, 204, 206, 207, 208, 209, 210, 211, 212, 213, 214, 215, 216, 217, 218,
     219, 220, 221]"

definition row_gotos_2 :: "nat list" where
  "row_gotos_2 =
    [222, 223, 224, 225, 226, 227, 228, 229, 230, 231, 232, 233, 234, 235, 236, 237, 238, 239, 240,
     241, 242, 243, 244, 245, 246, 247, 248, 249, 250, 251, 252, 253, 254, 255, 256, 257, 258, 259,
     260, 261, 262, 263, 264, 265, 266, 267, 268, 269, 270, 271, 272, 273, 274, 275, 276, 277, 278,
     279, 280, 281, 282, 283, 284, 285, 286, 287, 288, 289, 290, 291, 292, 293, 294, 295, 296, 297,
     298, 299, 300, 301, 302, 303, 304, 305, 306, 307, 308, 309, 310, 311, 312, 313, 314, 315, 316,
     317, 318, 319, 320, 321]"

definition row_gotos_3 :: "nat list" where
  "row_gotos_3 =
    [322, 323, 324, 325, 326, 327, 328, 329, 330, 331, 332, 333, 334, 335, 336, 337, 338, 339, 340,
     341, 342, 343, 344, 345, 346, 347, 348, 349, 350, 351, 352, 353, 354, 355, 356, 357, 358, 359,
     360, 361, 362, 363, 364, 365, 366, 367, 368, 369, 370, 371, 372, 373, 374, 375, 376, 377, 378,
     379, 380, 381, 382, 383, 384, 385, 386, 387, 388, 389, 390, 391, 392, 393, 394, 395, 396, 397,
     398, 399, 400, 401, 402, 403, 404, 405, 406, 407, 408, 409, 410, 411, 412, 413, 414, 415, 416,
     417, 418, 419, 420, 421]"

definition row_gotos_4 :: "nat list" where
  "row_gotos_4 =
    [422, 423, 424, 425, 426, 427, 428, 429, 430, 431, 432, 433, 434, 435, 436, 437, 438, 439, 440,
     441, 442, 443, 444, 445, 446, 447, 448, 449, 450, 451, 452, 453, 454, 455, 456, 457, 458, 459,
     460, 461, 462, 463, 464, 465, 466, 467, 468, 469, 470, 471, 472, 473, 474, 475, 476, 477, 478,
     479, 480, 481, 482, 483, 484, 485, 486, 487, 488, 489, 490, 491, 492, 493, 494, 495, 496, 497,
     498, 499, 500, 501, 502, 503, 504, 505, 506, 507, 508, 509, 510, 511, 512, 513, 514, 515, 516,
     517, 518, 519, 520, 521]"

definition row_gotos_5 :: "nat list" where
  "row_gotos_5 =
    [522, 523, 524, 525, 526, 527, 528, 529, 530, 531, 532, 533, 534, 535, 536, 537, 538, 539, 540,
     541, 542, 543, 544, 545, 546, 547, 548, 549, 550, 551, 552, 553, 554, 555, 556, 557, 558, 559,
     560, 561, 562, 563, 564, 565, 566, 567, 568, 569, 570, 571, 572, 573, 574, 575, 576, 577, 578,
     579, 580, 581, 582, 583, 584, 585, 586, 587, 588, 589, 590, 591, 592, 593, 594, 595, 596, 597,
     598, 599, 600, 601, 602, 603, 604, 605, 606, 607, 608, 609, 610, 611, 612, 613, 614, 615, 616,
     617, 618, 619, 620, 621]"

definition row_gotos_6 :: "nat list" where
  "row_gotos_6 =
    [622, 623, 624, 625, 626, 627, 628, 629, 630, 631, 632, 633, 634, 635, 636, 637, 638, 639, 640,
     641, 642, 643, 644, 645, 646, 647, 648, 649, 650, 651, 652, 653, 654, 655, 656, 657, 658, 659,
     660, 661, 662, 663, 664, 665, 666, 667, 668, 669, 670, 671, 672, 673, 674, 675, 676, 677, 678,
     679, 680, 681, 682, 683, 684, 685, 686, 687, 688, 689, 690, 691, 692, 693, 694, 695, 696, 697,
     698, 699, 700, 701, 702, 703, 704, 705, 706, 707, 708, 709, 710, 711, 712, 713, 714, 715, 716,
     717, 718, 719, 720, 721]"

definition row_gotos_7 :: "nat list" where
  "row_gotos_7 =
    [722, 723, 724, 725, 726, 727, 728, 729, 730, 731, 732, 733, 734, 735, 736, 737, 738, 739, 740,
     741, 742, 743, 744, 745, 746, 747, 748, 749, 750, 751, 752, 753, 754, 755, 756, 757, 758, 759,
     760, 761, 762, 763, 764, 765, 766, 767, 768, 769, 770, 771, 772, 773, 774, 775, 776, 777, 778,
     779, 780, 781, 782, 783, 784, 785, 786, 787, 788, 789, 790, 791, 792, 793, 794, 795, 796, 797,
     798, 799, 800, 801, 802, 803, 804, 805, 806, 807, 808, 809, 810, 811, 812, 813, 814, 815, 816,
     817, 818, 819, 820, 821]"

definition row_gotos_8 :: "nat list" where
  "row_gotos_8 =
    [822, 823, 824, 825, 826, 827, 828, 829, 830, 831, 832, 833, 834, 835, 836, 837, 838, 839, 840,
     841, 842, 843, 844, 845, 846, 847, 848, 849, 850, 851, 852, 853, 854, 855, 856, 857, 858, 859,
     860, 861, 862, 863, 864, 865, 866, 867, 868, 869, 870, 871, 872, 873, 874, 875, 876, 877, 878,
     879, 880, 885, 886, 888, 889, 891, 892, 895, 896, 898, 900, 950, 951, 952, 953, 956, 957, 958,
     959, 961, 962, 963, 966, 968, 969, 970, 971, 972, 973, 974, 975, 977, 978, 980, 981, 982, 983,
     984, 985, 986, 987, 989]"

definition row_gotos_9 :: "nat list" where
  "row_gotos_9 =
    [990, 991, 992, 993, 995, 996, 997, 1000, 1001, 1003, 1004, 1005, 1008, 1009, 1012, 1013, 1014,
     1015, 1017, 1019, 1020, 1022, 1023, 1024, 1027, 1028, 1029, 1031, 1032, 1033, 1034, 1035, 1037,
     1040, 1041, 1042, 1044, 1045, 1046, 1047, 1048, 1049, 1050, 1051, 1054, 1055, 1056, 1058, 1059,
     1061, 1062, 1063, 1065, 1066, 1067, 1070, 1071, 1074, 1075, 1076, 1077, 1079, 1081, 1082, 1084,
     1085, 1086, 1089, 1090, 1091, 1093, 1094, 1095, 1096, 1098, 1099, 1100, 1103, 1104, 1105, 1107,
     1109, 1111, 1112, 1115, 1116, 1117, 1118, 1119, 1120, 1121, 1122, 1123, 1124, 1125, 1126, 1127,
     1130, 1132, 1136]"

definition row_gotos_10 :: "nat list" where
  "row_gotos_10 =
    [1138, 1139, 1141, 1142, 1144, 1145, 1146, 1149, 1159, 1164, 1169, 1180, 1182, 1183, 1185, 1187,
     1189, 1191, 1192, 1193, 1194, 1195, 1196, 1197, 1200, 1225, 1226, 1227, 1228, 1229, 1230, 1231,
     1232, 1233, 1234, 1235, 1236, 1237, 1238, 1239, 1240, 1241, 1242, 1243, 1244, 1245, 1246, 1247,
     1248, 1249, 1250, 1251, 1252, 1253, 1254, 1255, 1256, 1257, 1258, 1259, 1260, 1261, 1262, 1263,
     1264, 1265, 1266, 1267, 1268, 1269, 1270, 1271, 1272, 1273, 1274, 1275, 1276, 1277, 1278, 1279,
     1280, 1281, 1282, 1283, 1284, 1285, 1286, 1287, 1288, 1289, 1290, 1291, 1292, 1293, 1294, 1295,
     1296, 1297, 1298, 1299]"

definition row_gotos_11 :: "nat list" where
  "row_gotos_11 =
    [1300, 1301, 1302, 1303, 1304, 1305, 1306, 1307, 1308, 1309, 1310, 1311, 1312, 1313, 1314, 1315,
     1316, 1317, 1318, 1319, 1320, 1321, 1322, 1323, 1324, 1325, 1326, 1327, 1328, 1329, 1330, 1331,
     1332, 1333, 1334, 1335, 1336, 1337, 1338, 1339, 1340, 1341, 1342, 1343, 1344, 1345, 1346, 1347,
     1348, 1349, 1350, 1351, 1352, 1353, 1354, 1355, 1356, 1357, 1358, 1359, 1360, 1361, 1362, 1363,
     1364, 1365, 1366, 1367, 1368, 1369, 1370, 1371, 1372, 1373, 1374, 1375, 1376, 1377, 1378, 1379,
     1380, 1381, 1382, 1383, 1384, 1385, 1386, 1387, 1388, 1389, 1390, 1391, 1392, 1393, 1394, 1395,
     1396, 1397, 1398, 1399]"

definition row_gotos_12 :: "nat list" where
  "row_gotos_12 =
    [1400, 1401, 1402, 1403, 1404, 1405, 1406, 1407, 1408, 1409, 1410, 1411, 1412, 1413, 1414, 1415,
     1416, 1417, 1418, 1419, 1420, 1421, 1422, 1423, 1424, 1425, 1426, 1427, 1428, 1429, 1430, 1431,
     1432, 1433, 1434, 1435, 1436, 1437, 1438, 1439, 1440, 1441, 1442, 1443, 1444, 1445, 1446, 1447,
     1448, 1449, 1450, 1451, 1452, 1453, 1454, 1455, 1456, 1457, 1458, 1459, 1460, 1461, 1462, 1463,
     1464, 1465, 1466, 1467, 1468, 1469, 1470, 1471, 1472, 1473, 1474, 1475, 1476, 1477, 1478, 1479,
     1480, 1481, 1482, 1483, 1484, 1485, 1486, 1487, 1488, 1489, 1490, 1491, 1492, 1493, 1494, 1495,
     1496, 1497, 1498, 1499]"

definition row_gotos_13 :: "nat list" where
  "row_gotos_13 =
    [1500, 1501, 1502, 1503, 1504, 1505, 1506, 1507, 1508, 1509, 1510, 1511, 1512, 1513, 1514, 1515,
     1516, 1517, 1518, 1519, 1520, 1521, 1522, 1523, 1524, 1525, 1526, 1527, 1528, 1529, 1530, 1531,
     1532, 1533, 1534, 1535, 1536, 1537, 1538, 1539, 1540, 1541, 1542, 1543, 1544, 1545, 1546, 1547,
     1548, 1549, 1550, 1551, 1552, 1553, 1554, 1555, 1556, 1557, 1558, 1559, 1560, 1561, 1562, 1563,
     1564, 1565, 1566, 1567, 1568, 1569, 1570, 1571, 1572, 1573, 1574, 1575, 1576, 1577, 1578, 1579,
     1580, 1581, 1582, 1583, 1584, 1585, 1586, 1587, 1588, 1589, 1590, 1591, 1592, 1593, 1594, 1595,
     1596, 1597, 1598, 1599]"

definition row_gotos_14 :: "nat list" where
  "row_gotos_14 =
    [1600, 1601, 1602, 1603, 1604, 1605, 1606, 1607, 1608, 1609, 1610, 1611, 1612, 1613, 1614, 1615,
     1616, 1617, 1618, 1619, 1620, 1621, 1622, 1623, 1624, 1625, 1626, 1627, 1628, 1629, 1630, 1631,
     1632, 1633, 1634, 1635, 1636, 1637, 1638, 1639, 1640, 1641, 1642, 1643, 1644, 1645, 1646, 1647,
     1648, 1649, 1650, 1651, 1652, 1653, 1654, 1655, 1656, 1657, 1658, 1659, 1660, 1661, 1662, 1663,
     1664, 1665, 1666, 1667, 1668, 1669, 1670, 1671, 1672, 1673, 1674, 1675, 1676, 1677, 1678, 1679,
     1680, 1681, 1682, 1683, 1684, 1685, 1686, 1687, 1688, 1689, 1690, 1691, 1692, 1693, 1694, 1695,
     1696, 1697, 1698, 1699]"

definition row_gotos_15 :: "nat list" where
  "row_gotos_15 =
    [1700, 1701, 1702, 1703, 1704, 1705, 1706, 1707, 1708, 1709, 1710, 1711, 1712, 1713, 1714, 1715,
     1716, 1717, 1718, 1719, 1720, 1721, 1722, 1723, 1724, 1725, 1726, 1727, 1728, 1729, 1730, 1731,
     1732, 1733, 1734, 1735, 1736, 1737, 1738, 1739, 1740, 1741, 1742, 1743, 1744, 1745, 1746, 1747,
     1748, 1749, 1750, 1751, 1752, 1753, 1754, 1755, 1756, 1757, 1758, 1759, 1760, 1761, 1762, 1763,
     1764, 1765, 1766, 1767, 1768, 1769, 1770, 1771, 1772, 1773, 1774, 1775, 1776, 1777, 1778, 1779,
     1780, 1781, 1782, 1783, 1784, 1785, 1786, 1787, 1788, 1789, 1790, 1791, 1792, 1793, 1794, 1795,
     1796, 1797, 1798, 1799]"

definition row_gotos_16 :: "nat list" where
  "row_gotos_16 =
    [1800, 1801, 1802, 1803, 1804, 1805, 1806, 1807, 1808, 1809, 1810, 1811, 1812, 1813, 1814, 1815,
     1816, 1817, 1818, 1819, 1820, 1821, 1822, 1823, 1824, 1825, 1826, 1827, 1828, 1829, 1830, 1831,
     1832, 1833, 1834, 1835, 1836, 1837, 1838, 1839, 1840, 1841, 1842, 1843, 1844, 1845, 1846, 1847,
     1848, 1849, 1850, 1851, 1852, 1853, 1854, 1855, 1856, 1857, 1858, 1859, 1860, 1861, 1862, 1863,
     1864, 1865, 1866, 1867, 1868, 1869, 1870, 1871, 1872, 1873, 1874, 1875, 1876, 1877, 1878, 1879,
     1880, 1881, 1882, 1883, 1884, 1885, 1886, 1887, 1888, 1889, 1890, 1891, 1892, 1893, 1894, 1895,
     1896, 1897, 1898, 1899]"

definition row_gotos_17 :: "nat list" where
  "row_gotos_17 =
    [1900, 1901, 1903, 1904, 1905, 1907, 1908, 1909, 1911, 1912, 1913, 1914, 1915, 1916, 1917, 1918,
     1919, 1920, 1921, 1922, 1923, 1925, 1926, 1928, 1929, 1930, 1931, 1932, 1933, 1934, 1935, 1936,
     1937, 1938, 1939, 1940, 1941, 1942, 1943, 1944, 1945, 1946, 1947, 1948, 1949, 1950, 1951, 1952,
     1953, 1954, 1955, 1956, 1957, 1958, 1959, 1960, 1961, 1962, 1963, 1964, 1965, 1966, 1967, 1968,
     1969, 1970, 1971, 1972, 1973, 1974, 1975, 1976, 1977, 1978, 1979, 1980, 1981, 1982, 1983, 1984,
     1985, 1986, 1987, 1988, 1989, 1990, 1991, 1992, 1993, 1994, 1995, 1996, 1997, 1998, 2002, 2012,
     2013, 2015, 2016, 2018]"

definition row_gotos_18 :: "nat list" where
  "row_gotos_18 =
    [2019, 2024, 2029, 2030, 2031, 2032, 2033, 2034, 2035, 2036, 2037, 2039, 2040, 2042, 2043, 2044,
     2045, 2049, 2054, 2060, 2066, 2067, 2087, 2088, 2089, 2090, 2091, 2092, 2093, 2096, 2102, 2105,
     2111, 2114, 2120, 2123, 2284, 2286, 2291, 2337, 2338, 2339, 2340, 2343, 2347, 2352, 2353, 2365,
     2367, 2368, 2372, 2373, 2536, 2549, 2592, 2627, 2641, 2644, 2934, 2935, 2940, 2943, 2947, 2961,
     2978, 2991, 3043, 3047, 3140, 3150, 3159, 3160, 3196, 3197, 3198, 3248, 3266, 3268, 3269, 3310,
     3311, 3312, 3313, 3314, 3315, 3316, 3317, 3318, 3319, 3320, 3321, 3322, 3323, 3324, 3325, 3326,
     3327, 3328, 3335, 3336]"

definition row_gotos_19 :: "nat list" where
  "row_gotos_19 =
    [3337, 3338, 3339, 3340, 3341, 3342, 3343, 3354, 3411, 7194, 7207, 7439, 7449, 7490, 7508, 7530,
     7599, 7606, 7612, 7628, 7633, 7659, 7675, 7831, 7921, 7950, 7951, 7953, 7970, 7973, 7974, 7984,
     7990, 8003, 8009, 8010, 8013, 8026, 8028, 8040, 8041, 8055, 8056, 8064, 8066, 8070, 8076, 8088,
     8098, 8099, 8101, 8102, 8103, 8108, 8115, 8124, 8130, 8133, 8158, 8162, 8165, 8188, 8202, 8207,
     8208, 8209, 8211, 8212, 8213, 8214, 8216, 8218, 8221, 8222, 8223, 8226, 8227, 8228, 8229, 8230,
     8232, 8233, 8237, 8241, 8242, 8243, 8244, 8247, 8249, 8250, 8251, 8254, 8255, 8256, 8258, 8260,
     8262, 8266, 8271, 8274]"

definition row_gotos_20 :: "nat list" where
  "row_gotos_20 =
    [8276, 8279, 8281, 8284, 8285, 8287, 8288, 8289, 8291, 8292, 8297, 8303, 8306, 8310, 8311, 8315,
     8316, 8317, 8320, 8322, 8325, 8326, 8329, 8336, 8337, 8339, 8341, 8343, 8344, 8352, 8354, 8355,
     8358, 8361, 8368, 8369, 8370, 8373, 8374, 8375, 8378, 8380, 8383, 8384, 8386, 8387, 8390, 8391,
     8393, 8400, 8402, 8408, 8416, 8418, 8419, 8424, 8426, 8428, 8429, 8430, 8434, 8435, 8438, 8439,
     8443, 8445, 8446, 8449, 8451, 8455, 8457, 8458, 8460, 8461, 8465, 8466, 8467, 8469, 8470, 8473,
     8475, 8478, 8479, 8480, 8483, 8486, 8488, 8490, 8492, 8493, 8495, 8496, 8504, 8510, 8513, 8516,
     8523, 8524, 8529, 8534]"

definition row_gotos_21 :: "nat list" where
  "row_gotos_21 =
    [8535, 8539, 8544, 8546, 8547, 8549, 8550, 8552, 8555, 8560, 8562, 8563, 8566, 8569, 8570, 8572,
     8584, 8588, 8591, 8594, 8595, 8598, 8599, 8600, 8601, 8602, 8604, 8607, 8608, 8609, 8612, 8614,
     8616, 8617, 8618, 8621, 8623, 8625, 8626, 8627, 8629, 8630, 8631, 8632, 8634, 8636, 8637, 8642,
     8643, 8644, 8645, 8647, 8648, 8652, 8654, 8659, 8660, 8661, 8663, 8664, 8666, 8669, 8671, 8673,
     8676, 8677, 8678, 8680, 8681, 8682, 8687, 8688, 8690, 8691, 8695, 8696, 8697, 8698, 8700, 8703,
     8704, 8705, 8711, 8712, 8716, 8717, 8718, 8719, 8722, 8723, 8725, 8726, 8727, 8728, 8729, 8732,
     8733, 8734, 8736, 8738]"

definition row_gotos_22 :: "nat list" where
  "row_gotos_22 =
    [8742, 8743, 8744, 8746, 8748, 8750, 8751, 8753, 8754, 8758, 8759, 8760, 8763, 8764, 8766, 8767,
     8768, 8770, 8771, 8773, 8776, 8777, 8778, 8782, 8785, 8786, 8787, 8789, 8790, 8792, 8793, 8795,
     8796, 8797, 8800, 8801, 8802, 8803, 8805, 8806, 8808, 8809, 8810, 8812, 8813, 8815, 8816, 8817,
     8819, 8822, 8823, 8824, 8825, 8828, 8830, 8831, 8833, 8834, 8835, 8837, 8839, 8841, 8842, 8843,
     8844, 8846, 8847, 8848, 8849, 8851, 8852, 8856, 8857, 8858, 8859, 8861, 8863, 8866, 8867, 8868,
     8869, 8872, 8874, 8878, 8882, 8883, 8886, 8887, 8888, 8889, 8893, 8894, 8896, 8897, 8900, 8902,
     8904, 8906, 8907, 8909]"

definition row_gotos_23 :: "nat list" where
  "row_gotos_23 =
    [8911, 8912, 8916, 8917, 8918, 8919, 8921, 8922, 8923, 8924, 8925, 8926, 8929, 8930, 8932, 8934,
     8935, 8936, 8939, 8940, 8941, 8942, 8946, 8947, 8949, 8950, 8951, 8953, 8954, 8956, 8960, 8961,
     8963, 8964, 8966, 8967, 8970, 8972, 8975, 8976, 8981, 8982, 8983, 8986, 8987, 8988, 8990, 8991,
     8995, 8997, 8999, 9001, 9002, 9005, 9008, 9010, 9011, 9012, 9014, 9015, 9020, 9023, 9025, 9026,
     9027, 9029, 9030, 9032, 9035, 9036, 9038, 9040, 9044, 9045, 9046, 9047, 9049, 9052, 9056, 9058,
     9061, 9064, 9068, 9071, 9072, 9075, 9077, 9079, 9080, 9081, 9084, 9086, 9089, 9092, 9093, 9095,
     9097, 9099, 9100, 9109]"

definition row_gotos_24 :: "nat list" where
  "row_gotos_24 =
    [9110, 9113, 9114, 9117, 9118, 9121, 9122, 9124, 9125, 9127, 9128, 9133, 9134, 9135, 9138, 9139,
     9140, 9141, 9143, 9144, 9147, 9148, 9151, 9154, 9156, 9157, 9158, 9162, 9163, 9166, 9167, 9170,
     9173, 9174, 9177, 9178, 9180, 9187, 9188, 9191, 9192, 9194, 9198, 9199, 9200, 9203, 9204, 9208,
     9209, 9210, 9217, 9220, 9221, 9222, 9227, 9230, 9231, 9234, 9235, 9237, 9240, 9241, 9246, 9248,
     9249, 9251, 9252, 9254, 9255, 9258, 9260, 9261, 9265, 9267, 9275, 9278, 9281, 9282, 9287, 9291,
     9292, 9300, 9301, 9303, 9305, 9309, 9310, 9311, 9313, 9314, 9317, 9320, 9322, 9323, 9328, 9329,
     9331, 9334, 9335, 9336]"

definition row_gotos_25 :: "nat list" where
  "row_gotos_25 =
    [9338, 9339, 9340, 9344, 9345, 9348, 9349, 9355, 9356, 9362, 9364, 9365, 9367, 9368, 9370, 9373,
     9375, 9376, 9381, 9382, 9384, 9388, 9389, 9391, 9393, 9395, 9400, 9401, 9402, 9404, 9406, 9407,
     9408, 9411, 9413, 9417, 9421, 9422, 9423, 9426, 9427, 9429, 9430, 9432, 9433, 9436, 9437, 9443,
     9444, 9448, 9449, 9453, 9455, 9456, 9457, 9459, 9462, 9464, 9465, 9468, 9469, 9470, 9471, 9478,
     9480, 9486, 9489, 9491, 9494, 9495, 9497, 9499, 9501, 9502, 9506, 9507, 9510, 9512, 9513, 9515,
     9516, 9518, 9521, 9525, 9526, 9527, 9529, 9530, 9532, 9533, 9534, 9539, 9543, 9544, 9548, 9549,
     9550, 9552, 9553, 9555]"

definition row_gotos_26 :: "nat list" where
  "row_gotos_26 =
    [9556, 9558, 9561, 9562, 9565, 9568, 9572, 9574, 9575, 9576, 9578, 9579, 9583, 9584, 9590, 9591,
     9593, 9596, 9597, 9598, 9599, 9601, 9602, 9605, 9606, 9609, 9610, 9613, 9615, 9616, 9617, 9618,
     9619, 9622, 9624, 9625, 9629, 9630, 9634, 9636, 9638, 9641, 9646, 9648, 9651, 9652, 9654, 9656,
     9660, 9661, 9666, 9667, 9669, 9670, 9671, 9675, 9676, 9679, 9680, 9681, 9682, 9683, 9684, 9686,
     9687, 9689, 9690, 9691, 9694, 9696, 9697, 9699, 9701, 9703, 9704, 9705, 9706, 9708, 9710, 9712,
     9713, 9714, 9715, 9720, 9722, 9723, 9725, 9726, 9728, 9729, 9731, 9735, 9736, 9738, 9743, 9744,
     9747, 9749, 9750, 9753]"

definition row_gotos_27 :: "nat list" where
  "row_gotos_27 =
    [9754, 9755, 9756, 9759, 9760, 9762, 9763, 9765, 9767, 9770, 9771, 9772, 9774, 9775, 9776, 9781,
     9783, 9785, 9786, 9787, 9789, 9792, 9794, 9797, 9799, 9803, 9806, 9809, 9811, 9812, 9816, 9820,
     9821, 9822, 9825, 9827, 9828, 9830, 9831, 9832, 9833, 9836, 9838, 9839, 9842, 9845, 9847, 9852,
     9856, 9857, 9860, 9862, 9865, 9866, 9867, 9868, 9872, 9876, 9877, 9878, 9881, 9884, 9885, 9887,
     9891, 9892, 9894, 9897, 9898, 9899, 9901, 9902, 9903, 9904, 9908, 9911, 9912, 9913, 9916, 9919,
     9920, 9922, 9923, 9926, 9927, 9928, 9929, 9931, 9935, 9936, 9942, 9945, 9952, 9958, 9962, 9964,
     9965, 9968, 9970, 9974]"

definition row_gotos_28 :: "nat list" where
  "row_gotos_28 =
    [9975, 9977, 9980, 9983, 9988, 9992, 9994, 9999, 10002, 10004, 10005, 10006, 10007, 10012,
     10013, 10017, 10018, 10019, 10020, 10021, 10026, 10027, 10028, 10029, 10031, 10036, 10037,
     10038, 10040, 10043, 10045, 10046, 10047, 10048, 10049, 10054, 10056, 10062, 10064, 10065,
     10067, 10068, 10073, 10075, 10080, 10083, 10085, 10088, 10089, 10090, 10091, 10093, 10094,
     10095, 10097, 10098, 10100, 10102, 10104, 10105, 10106, 10107, 10109, 10112, 10114, 10116,
     10117, 10118, 10123, 10128, 10129, 10130, 10131, 10133, 10136, 10138, 10141, 10143, 10144,
     10145, 10147, 10148, 10149, 10152, 10156, 10157, 10159, 10162, 10163, 10164, 10165, 10167,
     10170, 10174, 10175, 10176, 10178, 10180, 10181, 10183]"

definition row_gotos_29 :: "nat list" where
  "row_gotos_29 =
    [10184, 10185, 10186, 10187, 10193, 10196, 10198, 10199, 10202, 10204, 10207, 10208, 10209,
     10210, 10211, 10213, 10214, 10215, 10216, 10218, 10220, 10221, 10222, 10224, 10226, 10227,
     10228, 10230, 10232, 10233, 10235, 10236, 10237, 10238, 10239, 10240, 10242, 10243, 10245,
     10246, 10248, 10250, 10251, 10252, 10253, 10254, 10255, 10256, 10257, 10258, 10259, 10263,
     10266, 10270, 10272, 10273, 10277, 10278, 10279, 10280, 10282, 10284, 10285, 10286, 10287,
     10290, 10291, 10292, 10293, 10296, 10298, 10299, 10300, 10301, 10303, 10305, 10306, 10310,
     10311, 10312, 10315, 10318, 10323, 10324, 10327, 10329, 10330, 10332, 10333, 10334, 10335,
     10338, 10340, 10341, 10343, 10344, 10345, 10347, 10348, 10350]"

definition row_gotos_30 :: "nat list" where
  "row_gotos_30 =
    [10353, 10356, 10357, 10359, 10361, 10362, 10364, 10365, 10366, 10367, 10368, 10370, 10371,
     10373, 10375, 10376, 10377, 10379, 10380, 10381, 10384, 10385, 10387, 10388, 10390, 10391,
     10393, 10394, 10395, 10396, 10397, 10398, 10400, 10402, 10403, 10404, 10406, 10408, 10409,
     10411, 10412, 10413, 10414, 10415, 10416, 10417, 10418, 10419, 10421, 10422, 10424, 10425,
     10426, 10427, 10428, 10429, 10430, 10431, 10432, 10433, 10434, 10436, 10437, 10439, 10441,
     10444, 10445, 10450, 10453, 10454, 10455, 10456, 10460, 10466, 10468, 10469, 10471, 10478,
     10485, 10486, 10489, 10491, 10492, 10493, 10496, 10501, 10502, 10503, 10504, 10507, 10513,
     10516, 10519, 10521, 10522, 10523, 10524, 10528, 10529, 10532]"

definition row_gotos_31 :: "nat list" where
  "row_gotos_31 =
    [10535, 10543, 10544]"

definition uncounted_tokens :: "TSSymbol list" where
  "uncounted_tokens =
    [ts_builtin_sym_end, sym_identifier, aux_sym_ERR_implements_before_extends_token1,
     aux_sym_ERR_extends_multiple_times_token1, aux_sym_ERR_doubled_qualifier_token1,
     aux_sym_ERR_doubled_qualifier_token2, aux_sym_ERR_doubled_retain_token1,
     aux_sym_ERR_invalid_edge_qualifier_token1, anon_sym_COLON_EQ, anon_sym_EQ, anon_sym_COLON,
     anon_sym_EQ_GT, aux_sym_ERR_unexpected_this_in_path_token1,
     aux_sym_ERR_unexpected_super_in_path_token1, anon_sym_COMMA,
     aux_sym_ERR_single_after_interval_token1, aux_sym_ERR_interval_after_priority_token1,
     anon_sym_LBRACE, anon_sym_extern, anon_sym_RBRACE, anon_sym_LPAREN, anon_sym_params,
     anon_sym_RPAREN, anon_sym_result, anon_sym_wasm, sym_pragma_string, anon_sym_warn,
     anon_sym_info, anon_sym_allow, aux_sym_test_pragma_token1, aux_sym_once_pragma_token1,
     aux_sym_must_call_pragma_token1, aux_sym_export_pragma_token1, anon_sym_POUND,
     sym_unsigned_int, sym__explicit_signed_int, sym_binary_int, sym_octal_int, sym_hex_int,
     sym__explicit_signed_real, sym_real_value, aux_sym_bool_literal_with_string_token1,
     aux_sym_bool_literal_with_string_token2, aux_sym_bool_literal_with_string_token3, anon_sym_0,
     anon_sym_1, sym_s_byte_char_str, sym_d_byte_char_str, aux_sym_time_token1, anon_sym_PLUS,
     anon_sym_DASH, aux_sym_ltime_token1, aux_sym_tod_token1, aux_sym_ltod_token1,
     aux_sym_short_date_token1, aux_sym_long_date_token1, aux_sym_short_date_and_time_token1,
     aux_sym_long_date_and_time_token1, aux_sym_sign_int_type_name_token1,
     aux_sym_sign_int_type_name_token2, aux_sym_sign_int_type_name_token3,
     aux_sym_sign_int_type_name_token4, aux_sym_unsign_int_type_name_token1,
     aux_sym_unsign_int_type_name_token2, aux_sym_unsign_int_type_name_token3,
     aux_sym_unsign_int_type_name_token4, aux_sym_real_type_name_token1,
     aux_sym_real_type_name_token2, aux_sym_string_name_token1, anon_sym_LBRACK, anon_sym_RBRACK,
     aux_sym_char_name_token1, sym_time_type_name, sym_l_time_type_name, sym_date_type_name,
     sym_l_date_type_name, sym_tod_type_name, sym_ltod_type_name, sym_dt_type_name,
     sym_l_dt_type_name, aux_sym_bit_str_type_name_token1, aux_sym_multibits_type_name_token1,
     aux_sym_multibits_type_name_token2, aux_sym_multibits_type_name_token3,
     aux_sym_multibits_type_name_token4, aux_sym_data_type_decl_token1, anon_sym_SEMI,
     aux_sym_data_type_decl_token2, anon_sym_DOT_DOT, aux_sym_array_type_spec_token1,
     aux_sym_array_type_spec_token2, aux_sym_struct_type_spec_token1,
     aux_sym_struct_type_spec_token2, aux_sym_struct_type_spec_token3,
     aux_sym_relative_located_at_token1, anon_sym_PERCENT, anon_sym_STAR, anon_sym_DOT,
     aux_sym_ref_type_spec_token1, aux_sym_ref_value_token1, aux_sym_ref_addr_token1,
     anon_sym_CARET, aux_sym_input_decls_token1, aux_sym_input_decls_token2, anon_sym_DOT_DOT_DOT,
     aux_sym_edge_decl_token1, aux_sym_edge_decl_token2, aux_sym_output_decls_token1,
     aux_sym_in_out_decls_token1, aux_sym_var_decls_token1, aux_sym_temp_var_decls_token1,
     aux_sym_external_var_decls_token1, aux_sym_global_var_decls_token1, aux_sym_func_decl_token1,
     aux_sym_func_decl_token2, aux_sym_fb_decl_token1, aux_sym_fb_decl_token2,
     aux_sym_fb_decl_token3, aux_sym_fb_decl_token4, aux_sym_method_decl_token1,
     aux_sym_method_decl_token2, aux_sym_method_decl_token3, aux_sym_class_decl_token1,
     aux_sym_class_decl_token2, aux_sym_interface_decl_token1, aux_sym_interface_decl_token2,
     aux_sym_access_spec_token1, aux_sym_access_spec_token2, aux_sym_access_spec_token3,
     aux_sym_access_spec_token4, aux_sym_prog_decl_token1, aux_sym_prog_decl_token2,
     aux_sym_prog_access_decls_token1, aux_sym_initial_step_token1, aux_sym_initial_step_token2,
     aux_sym_step_token1, anon_sym_N, anon_sym_R, anon_sym_S, anon_sym_P, anon_sym_L, anon_sym_D,
     aux_sym_action_qualifier_token1, aux_sym_action_qualifier_token2,
     aux_sym_action_qualifier_token3, aux_sym_transition_token1, aux_sym_transition_token2,
     aux_sym_transition_token3, aux_sym_transition_token4, aux_sym_transition_token5,
     aux_sym_action_token1, aux_sym_action_token2, aux_sym_config_decl_token1,
     aux_sym_config_decl_token2, aux_sym_resource_decl_token1, aux_sym_resource_decl_token2,
     aux_sym_resource_decl_token3, aux_sym_access_direction_token1, aux_sym_access_direction_token2,
     aux_sym_task_config_token1, aux_sym_prog_config_token1, aux_sym_config_init_token1,
     aux_sym_namespace_decl_token1, aux_sym_namespace_decl_token2, aux_sym_using_directive_token1,
     anon_sym_SLASH, anon_sym_STAR_STAR, anon_sym_AMP, anon_sym_PIPE, anon_sym_LT_GT, anon_sym_LT,
     anon_sym_GT, anon_sym_LT_EQ, anon_sym_GT_EQ, aux_sym_fold_operator_token1,
     aux_sym_fold_operator_token2, aux_sym_or_operator_token1, aux_sym_xor_operator_token1,
     aux_sym_and_operator_token1, aux_sym_mult_token1, aux_sym_unary_token1, aux_sym__stmt_token1,
     aux_sym__stmt_token2, aux_sym__stmt_token3, aux_sym_if_stmt_token1, aux_sym_if_stmt_token2,
     aux_sym_if_stmt_token3, aux_sym_if_stmt_token4, aux_sym_else_if_stmt_token1,
     aux_sym_case_stmt_token1, aux_sym_case_stmt_token2, aux_sym_for_stmt_token1,
     aux_sym_for_stmt_token2, aux_sym_for_stmt_token3, aux_sym_for_list_token1,
     aux_sym_while_stmt_token1, aux_sym_while_stmt_token2, aux_sym_repeat_stmt_token1,
     aux_sym_repeat_stmt_token2, aux_sym_repeat_stmt_token3, aux_sym_raise_stmt_token1,
     aux_sym_try_stmt_token1, aux_sym_try_stmt_token2, aux_sym_catch_clause_token1,
     aux_sym_finally_clause_token1, aux_sym_ERR_end_try_spelling_token1, anon_sym_LPAREN_RPAREN,
     anon_sym_I, anon_sym_Q, anon_sym_M, sym_ld_rung, sym_fbd_network]"

lemmas row_actions =
  row_actions_1_def row_actions_2_def row_actions_3_def row_actions_4_def row_actions_5_def
  row_actions_6_def row_actions_7_def row_actions_8_def row_actions_9_def row_actions_10_def
  row_actions_11_def row_actions_12_def

lemma action_indices:
  "list_all action_index
    (row_actions_1 @ row_actions_2 @ row_actions_3 @ row_actions_4 @ row_actions_5 @
       row_actions_6 @ row_actions_7 @ row_actions_8 @ row_actions_9 @ row_actions_10 @
       row_actions_11 @ row_actions_12)"
  by (auto simp: list_all_iff action_index_def)

lemmas action_index_facts [simp] =
  action_indices [unfolded list_all_append row_actions list_all_equations simp_thms]

lemma action_index_1 [simp]: "action_index (Suc 0)"
  by (simp add: action_index_def row_actions_1_def)

lemma action_index_3: "action_index 3"
  by simp

lemma extra_tokens_small: "y \<in> set extra_tokens \<Longrightarrow> y < TOKEN_COUNT"
  by (auto simp: extra_tokens_def token_numbers TOKEN_COUNT_def)

lemma sign_tokens_small:
  "y \<in> set sign_tokens \<Longrightarrow> y < TOKEN_COUNT \<and> y \<notin> set extra_tokens"
  by (auto simp: extra_tokens_def sign_tokens_def token_numbers TOKEN_COUNT_def)

lemma row_nonterminals_large: "list_all (\<lambda>y. TOKEN_COUNT \<le> y) row_nonterminals"
  by (simp add: row_nonterminals_def grammar_symbol_numbers TOKEN_COUNT_def)

lemma next_extra_other: "y \<notin> set counted_tokens \<Longrightarrow> next_extra k y = k"
  using nth_mem[of k counted_tokens] by (auto simp: next_extra_def counted_simps)

lemma uncounted: "list_all (\<lambda>y. \<forall>k. next_extra k y = k) uncounted_tokens"
proof -
  have "list_all (\<lambda>y. y \<notin> set counted_tokens) uncounted_tokens"
    unfolding uncounted_tokens_def
    by (simp add: counted_simps token_numbers cong: list_all_weak)
  then show ?thesis
    using next_extra_other by (auto simp: list_all_iff)
qed

lemmas next_extra_tokens [simp] = uncounted [unfolded uncounted_tokens_def entry_simps]

lemma next_extra_nonterminal: "TOKEN_COUNT \<le> y \<Longrightarrow> next_extra k y = k"
  by (rule next_extra_other) (auto simp: counted_simps token_numbers TOKEN_COUNT_def)

lemma nonterminals_uncounted: "list_all (\<lambda>y. \<forall>k. next_extra k y = k) row_nonterminals"
  using row_nonterminals_large next_extra_nonterminal by (auto simp: list_all_iff)

lemmas next_extra_nonterminals [simp] =
  nonterminals_uncounted [unfolded row_nonterminals_def entry_simps]

lemma next_extra_counted [simp]:
  "next_extra 0 sym_line_comment = Suc 0"
  "next_extra (Suc 0) sym_c_style_comment = Suc (Suc 0)"
  "next_extra (Suc (Suc 0)) sym_pascal_style_comment = Suc (Suc (Suc 0))"
  "next_extra (Suc (Suc (Suc 0))) sym_pragma = Suc (Suc (Suc (Suc 0)))"
  "next_extra (Suc (Suc (Suc (Suc 0)))) sym__minus_before_base = Suc (Suc (Suc (Suc (Suc 0))))"
  "next_extra (Suc (Suc (Suc (Suc (Suc 0))))) sym__plus_before_base = Suc (Suc (Suc (Suc (Suc (Suc 0)))))"
  by (simp_all add: next_extra_def counted_simps numeral_eq_Suc)

lemma nonterminal_cells: "list_all (\<lambda>y. \<forall>ts v. cell_ok ts y v = goto_ok v) row_nonterminals"
  using row_nonterminals_large by (auto simp: list_all_iff cell_ok_def)

lemmas cell_ok_nonterminals [simp] = nonterminal_cells [unfolded row_nonterminals_def entry_simps]

lemma row_gotos_1_ok: "list_all goto_ok row_gotos_1"
  by (simp add: row_gotos_1_def goto_ok_def)

lemmas goto_ok_1 [simp] = row_gotos_1_ok [unfolded row_gotos_1_def entry_simps]

lemma row_gotos_2_ok: "list_all goto_ok row_gotos_2"
  by (simp add: row_gotos_2_def goto_ok_def)

lemmas goto_ok_2 [simp] = row_gotos_2_ok [unfolded row_gotos_2_def entry_simps]

lemma row_gotos_3_ok: "list_all goto_ok row_gotos_3"
  by (simp add: row_gotos_3_def goto_ok_def)

lemmas goto_ok_3 [simp] = row_gotos_3_ok [unfolded row_gotos_3_def entry_simps]

lemma row_gotos_4_ok: "list_all goto_ok row_gotos_4"
  by (simp add: row_gotos_4_def goto_ok_def)

lemmas goto_ok_4 [simp] = row_gotos_4_ok [unfolded row_gotos_4_def entry_simps]

lemma row_gotos_5_ok: "list_all goto_ok row_gotos_5"
  by (simp add: row_gotos_5_def goto_ok_def)

lemmas goto_ok_5 [simp] = row_gotos_5_ok [unfolded row_gotos_5_def entry_simps]

lemma row_gotos_6_ok: "list_all goto_ok row_gotos_6"
  by (simp add: row_gotos_6_def goto_ok_def)

lemmas goto_ok_6 [simp] = row_gotos_6_ok [unfolded row_gotos_6_def entry_simps]

lemma row_gotos_7_ok: "list_all goto_ok row_gotos_7"
  by (simp add: row_gotos_7_def goto_ok_def)

lemmas goto_ok_7 [simp] = row_gotos_7_ok [unfolded row_gotos_7_def entry_simps]

lemma row_gotos_8_ok: "list_all goto_ok row_gotos_8"
  by (simp add: row_gotos_8_def goto_ok_def)

lemmas goto_ok_8 [simp] = row_gotos_8_ok [unfolded row_gotos_8_def entry_simps]

lemma row_gotos_9_ok: "list_all goto_ok row_gotos_9"
  by (simp add: row_gotos_9_def goto_ok_def)

lemmas goto_ok_9 [simp] = row_gotos_9_ok [unfolded row_gotos_9_def entry_simps]

lemma row_gotos_10_ok: "list_all goto_ok row_gotos_10"
  by (simp add: row_gotos_10_def goto_ok_def)

lemmas goto_ok_10 [simp] = row_gotos_10_ok [unfolded row_gotos_10_def entry_simps]

lemma row_gotos_11_ok: "list_all goto_ok row_gotos_11"
  by (simp add: row_gotos_11_def goto_ok_def)

lemmas goto_ok_11 [simp] = row_gotos_11_ok [unfolded row_gotos_11_def entry_simps]

lemma row_gotos_12_ok: "list_all goto_ok row_gotos_12"
  by (simp add: row_gotos_12_def goto_ok_def)

lemmas goto_ok_12 [simp] = row_gotos_12_ok [unfolded row_gotos_12_def entry_simps]

lemma row_gotos_13_ok: "list_all goto_ok row_gotos_13"
  by (simp add: row_gotos_13_def goto_ok_def)

lemmas goto_ok_13 [simp] = row_gotos_13_ok [unfolded row_gotos_13_def entry_simps]

lemma row_gotos_14_ok: "list_all goto_ok row_gotos_14"
  by (simp add: row_gotos_14_def goto_ok_def)

lemmas goto_ok_14 [simp] = row_gotos_14_ok [unfolded row_gotos_14_def entry_simps]

lemma row_gotos_15_ok: "list_all goto_ok row_gotos_15"
  by (simp add: row_gotos_15_def goto_ok_def)

lemmas goto_ok_15 [simp] = row_gotos_15_ok [unfolded row_gotos_15_def entry_simps]

lemma row_gotos_16_ok: "list_all goto_ok row_gotos_16"
  by (simp add: row_gotos_16_def goto_ok_def)

lemmas goto_ok_16 [simp] = row_gotos_16_ok [unfolded row_gotos_16_def entry_simps]

lemma row_gotos_17_ok: "list_all goto_ok row_gotos_17"
  by (simp add: row_gotos_17_def goto_ok_def)

lemmas goto_ok_17 [simp] = row_gotos_17_ok [unfolded row_gotos_17_def entry_simps]

lemma row_gotos_18_ok: "list_all goto_ok row_gotos_18"
  by (simp add: row_gotos_18_def goto_ok_def)

lemmas goto_ok_18 [simp] = row_gotos_18_ok [unfolded row_gotos_18_def entry_simps]

lemma row_gotos_19_ok: "list_all goto_ok row_gotos_19"
  by (simp add: row_gotos_19_def goto_ok_def)

lemmas goto_ok_19 [simp] = row_gotos_19_ok [unfolded row_gotos_19_def entry_simps]

lemma row_gotos_20_ok: "list_all goto_ok row_gotos_20"
  by (simp add: row_gotos_20_def goto_ok_def)

lemmas goto_ok_20 [simp] = row_gotos_20_ok [unfolded row_gotos_20_def entry_simps]

lemma row_gotos_21_ok: "list_all goto_ok row_gotos_21"
  by (simp add: row_gotos_21_def goto_ok_def)

lemmas goto_ok_21 [simp] = row_gotos_21_ok [unfolded row_gotos_21_def entry_simps]

lemma row_gotos_22_ok: "list_all goto_ok row_gotos_22"
  by (simp add: row_gotos_22_def goto_ok_def)

lemmas goto_ok_22 [simp] = row_gotos_22_ok [unfolded row_gotos_22_def entry_simps]

lemma row_gotos_23_ok: "list_all goto_ok row_gotos_23"
  by (simp add: row_gotos_23_def goto_ok_def)

lemmas goto_ok_23 [simp] = row_gotos_23_ok [unfolded row_gotos_23_def entry_simps]

lemma row_gotos_24_ok: "list_all goto_ok row_gotos_24"
  by (simp add: row_gotos_24_def goto_ok_def)

lemmas goto_ok_24 [simp] = row_gotos_24_ok [unfolded row_gotos_24_def entry_simps]

lemma row_gotos_25_ok: "list_all goto_ok row_gotos_25"
  by (simp add: row_gotos_25_def goto_ok_def)

lemmas goto_ok_25 [simp] = row_gotos_25_ok [unfolded row_gotos_25_def entry_simps]

lemma row_gotos_26_ok: "list_all goto_ok row_gotos_26"
  by (simp add: row_gotos_26_def goto_ok_def)

lemmas goto_ok_26 [simp] = row_gotos_26_ok [unfolded row_gotos_26_def entry_simps]

lemma row_gotos_27_ok: "list_all goto_ok row_gotos_27"
  by (simp add: row_gotos_27_def goto_ok_def)

lemmas goto_ok_27 [simp] = row_gotos_27_ok [unfolded row_gotos_27_def entry_simps]

lemma row_gotos_28_ok: "list_all goto_ok row_gotos_28"
  by (simp add: row_gotos_28_def goto_ok_def)

lemmas goto_ok_28 [simp] = row_gotos_28_ok [unfolded row_gotos_28_def entry_simps]

lemma row_gotos_29_ok: "list_all goto_ok row_gotos_29"
  by (simp add: row_gotos_29_def goto_ok_def)

lemmas goto_ok_29 [simp] = row_gotos_29_ok [unfolded row_gotos_29_def entry_simps]

lemma row_gotos_30_ok: "list_all goto_ok row_gotos_30"
  by (simp add: row_gotos_30_def goto_ok_def)

lemmas goto_ok_30 [simp] = row_gotos_30_ok [unfolded row_gotos_30_def entry_simps]

lemma row_gotos_31_ok: "list_all goto_ok row_gotos_31"
  by (simp add: row_gotos_31_def goto_ok_def)

lemmas goto_ok_31 [simp] = row_gotos_31_ok [unfolded row_gotos_31_def entry_simps]

lemma cell_ok_extra:
  "set extra_tokens \<subseteq> set ts \<Longrightarrow> y \<in> set extra_tokens \<Longrightarrow> cell_ok ts y v \<longleftrightarrow> v = 3"
  using extra_tokens_small action_index_3 by (auto simp: cell_ok_def)

lemma cell_ok_sign:
  "set sign_tokens \<subseteq> set ts \<Longrightarrow> y \<in> set sign_tokens \<Longrightarrow> cell_ok ts y v \<longleftrightarrow> action_index v"
  using sign_tokens_small by (auto simp: cell_ok_def)

lemma extra_tokens_members:
  "sym_line_comment \<in> set extra_tokens" "sym_c_style_comment \<in> set extra_tokens"
  "sym_pascal_style_comment \<in> set extra_tokens" "sym_pragma \<in> set extra_tokens"
  by (simp_all add: extra_tokens_def)

lemma plain_tokens_0_1_ok: "list_all (\<lambda>y. \<forall>v. cell_ok tokens_0_1 y v \<longleftrightarrow> action_index v) plain_tokens_0_1"
proof -
  have "list_all (\<lambda>y. y < TOKEN_COUNT \<and> y \<notin> set counted_tokens) plain_tokens_0_1"
    by (simp add: plain_tokens_0_1_def counted_simps token_numbers TOKEN_COUNT_def)
  then show ?thesis
    by (auto simp: list_all_iff cell_ok_def tokens_0_1_def counted_tokens_def)
qed

lemmas cell_ok_0_1 [simp] = plain_tokens_0_1_ok [unfolded plain_tokens_0_1_def entry_simps]

lemma cell_ok_extra_0_1 [simp]:
  "cell_ok tokens_0_1 sym_line_comment v \<longleftrightarrow> v = 3"
  "cell_ok tokens_0_1 sym_c_style_comment v \<longleftrightarrow> v = 3"
  "cell_ok tokens_0_1 sym_pascal_style_comment v \<longleftrightarrow> v = 3"
  "cell_ok tokens_0_1 sym_pragma v \<longleftrightarrow> v = 3"
  by (simp_all add: cell_ok_extra extra_tokens_members tokens_0_1_def)

lemma cell_ok_sign_0_1 [simp]:
  "cell_ok tokens_0_1 sym__minus_before_base v \<longleftrightarrow> action_index v"
  "cell_ok tokens_0_1 sym__plus_before_base v \<longleftrightarrow> action_index v"
  by (simp_all add: cell_ok_sign sign_tokens_def tokens_0_1_def)

lemma plain_tokens_1_1_ok: "list_all (\<lambda>y. \<forall>v. cell_ok tokens_1_1 y v \<longleftrightarrow> action_index v) plain_tokens_1_1"
proof -
  have "list_all (\<lambda>y. y < TOKEN_COUNT \<and> y \<notin> set counted_tokens) plain_tokens_1_1"
    by (simp add: plain_tokens_1_1_def counted_simps token_numbers TOKEN_COUNT_def)
  then show ?thesis
    by (auto simp: list_all_iff cell_ok_def tokens_1_1_def counted_tokens_def)
qed

lemmas cell_ok_1_1 [simp] = plain_tokens_1_1_ok [unfolded plain_tokens_1_1_def entry_simps]

lemma cell_ok_extra_1_1 [simp]:
  "cell_ok tokens_1_1 sym_line_comment v \<longleftrightarrow> v = 3"
  "cell_ok tokens_1_1 sym_c_style_comment v \<longleftrightarrow> v = 3"
  "cell_ok tokens_1_1 sym_pascal_style_comment v \<longleftrightarrow> v = 3"
  "cell_ok tokens_1_1 sym_pragma v \<longleftrightarrow> v = 3"
  by (simp_all add: cell_ok_extra extra_tokens_members tokens_1_1_def)

lemma cell_ok_sign_1_1 [simp]:
  "cell_ok tokens_1_1 sym__minus_before_base v \<longleftrightarrow> action_index v"
  "cell_ok tokens_1_1 sym__plus_before_base v \<longleftrightarrow> action_index v"
  by (simp_all add: cell_ok_sign sign_tokens_def tokens_1_1_def)

lemma plain_tokens_2_1_ok: "list_all (\<lambda>y. \<forall>v. cell_ok tokens_2_1 y v \<longleftrightarrow> action_index v) plain_tokens_2_1"
proof -
  have "list_all (\<lambda>y. y < TOKEN_COUNT \<and> y \<notin> set counted_tokens) plain_tokens_2_1"
    by (simp add: plain_tokens_2_1_def counted_simps token_numbers TOKEN_COUNT_def)
  then show ?thesis
    by (auto simp: list_all_iff cell_ok_def tokens_2_1_def counted_tokens_def)
qed

lemmas cell_ok_2_1 [simp] = plain_tokens_2_1_ok [unfolded plain_tokens_2_1_def entry_simps]

lemma cell_ok_extra_2_1 [simp]:
  "cell_ok tokens_2_1 sym_line_comment v \<longleftrightarrow> v = 3"
  "cell_ok tokens_2_1 sym_c_style_comment v \<longleftrightarrow> v = 3"
  "cell_ok tokens_2_1 sym_pascal_style_comment v \<longleftrightarrow> v = 3"
  "cell_ok tokens_2_1 sym_pragma v \<longleftrightarrow> v = 3"
  by (simp_all add: cell_ok_extra extra_tokens_members tokens_2_1_def)

lemma cell_ok_sign_2_1 [simp]:
  "cell_ok tokens_2_1 sym__minus_before_base v \<longleftrightarrow> action_index v"
  "cell_ok tokens_2_1 sym__plus_before_base v \<longleftrightarrow> action_index v"
  by (simp_all add: cell_ok_sign sign_tokens_def tokens_2_1_def)

lemma plain_tokens_4_1_ok: "list_all (\<lambda>y. \<forall>v. cell_ok tokens_4_1 y v \<longleftrightarrow> action_index v) plain_tokens_4_1"
proof -
  have "list_all (\<lambda>y. y < TOKEN_COUNT \<and> y \<notin> set counted_tokens) plain_tokens_4_1"
    by (simp add: plain_tokens_4_1_def counted_simps token_numbers TOKEN_COUNT_def)
  then show ?thesis
    by (auto simp: list_all_iff cell_ok_def tokens_4_1_def counted_tokens_def)
qed

lemmas cell_ok_4_1 [simp] = plain_tokens_4_1_ok [unfolded plain_tokens_4_1_def entry_simps]

lemma cell_ok_extra_4_1 [simp]:
  "cell_ok tokens_4_1 sym_line_comment v \<longleftrightarrow> v = 3"
  "cell_ok tokens_4_1 sym_c_style_comment v \<longleftrightarrow> v = 3"
  "cell_ok tokens_4_1 sym_pascal_style_comment v \<longleftrightarrow> v = 3"
  "cell_ok tokens_4_1 sym_pragma v \<longleftrightarrow> v = 3"
  by (simp_all add: cell_ok_extra extra_tokens_members tokens_4_1_def)

lemma cell_ok_sign_4_1 [simp]:
  "cell_ok tokens_4_1 sym__minus_before_base v \<longleftrightarrow> action_index v"
  "cell_ok tokens_4_1 sym__plus_before_base v \<longleftrightarrow> action_index v"
  by (simp_all add: cell_ok_sign sign_tokens_def tokens_4_1_def)

lemma plain_tokens_4_2_ok: "list_all (\<lambda>y. \<forall>v. cell_ok tokens_4_2 y v \<longleftrightarrow> action_index v) plain_tokens_4_2"
proof -
  have "list_all (\<lambda>y. y < TOKEN_COUNT \<and> y \<notin> set counted_tokens) plain_tokens_4_2"
    by (simp add: plain_tokens_4_2_def counted_simps token_numbers TOKEN_COUNT_def)
  then show ?thesis
    by (auto simp: list_all_iff cell_ok_def tokens_4_2_def counted_tokens_def)
qed

lemmas cell_ok_4_2 [simp] = plain_tokens_4_2_ok [unfolded plain_tokens_4_2_def entry_simps]

lemma cell_ok_extra_4_2 [simp]:
  "cell_ok tokens_4_2 sym_line_comment v \<longleftrightarrow> v = 3"
  "cell_ok tokens_4_2 sym_c_style_comment v \<longleftrightarrow> v = 3"
  "cell_ok tokens_4_2 sym_pascal_style_comment v \<longleftrightarrow> v = 3"
  "cell_ok tokens_4_2 sym_pragma v \<longleftrightarrow> v = 3"
  by (simp_all add: cell_ok_extra extra_tokens_members tokens_4_2_def)

lemma plain_tokens_63_2_ok: "list_all (\<lambda>y. \<forall>v. cell_ok tokens_63_2 y v \<longleftrightarrow> action_index v) plain_tokens_63_2"
proof -
  have "list_all (\<lambda>y. y < TOKEN_COUNT \<and> y \<notin> set counted_tokens) plain_tokens_63_2"
    by (simp add: plain_tokens_63_2_def counted_simps token_numbers TOKEN_COUNT_def)
  then show ?thesis
    by (auto simp: list_all_iff cell_ok_def tokens_63_2_def counted_tokens_def)
qed

lemmas cell_ok_63_2 [simp] = plain_tokens_63_2_ok [unfolded plain_tokens_63_2_def entry_simps]

lemma cell_ok_extra_63_2 [simp]:
  "cell_ok tokens_63_2 sym_line_comment v \<longleftrightarrow> v = 3"
  "cell_ok tokens_63_2 sym_c_style_comment v \<longleftrightarrow> v = 3"
  "cell_ok tokens_63_2 sym_pascal_style_comment v \<longleftrightarrow> v = 3"
  "cell_ok tokens_63_2 sym_pragma v \<longleftrightarrow> v = 3"
  by (simp_all add: cell_ok_extra extra_tokens_members tokens_63_2_def)

end
