(* ===== verification/Parse_Table_1.thy ===== *)
theory Parse_Table_1
  imports Parse_Cells
begin

text \<open>
  The rows 0 to 149 of \<open>ts_parse_table\<close> in \<open>src/crates/tree-sitter/src/parser.c\<close>, and the check of each
  against the tokens of its mode.
\<close>

text \<open>Lines 52784 to 52991.\<close>

definition ts_parse_row_0 :: parse_row where
  "ts_parse_row_0 =
    [(ts_builtin_sym_end, 1), (sym_identifier, 1),
     (aux_sym_ERR_implements_before_extends_token1, 1),
     (aux_sym_ERR_extends_multiple_times_token1, 1), (aux_sym_ERR_doubled_qualifier_token1, 1),
     (aux_sym_ERR_doubled_qualifier_token2, 1), (aux_sym_ERR_doubled_retain_token1, 1),
     (aux_sym_ERR_invalid_edge_qualifier_token1, 1), (anon_sym_COLON_EQ, 1), (anon_sym_EQ, 1),
     (anon_sym_COLON, 1), (anon_sym_EQ_GT, 1), (aux_sym_ERR_unexpected_this_in_path_token1, 1),
     (aux_sym_ERR_unexpected_super_in_path_token1, 1), (anon_sym_COMMA, 1),
     (aux_sym_ERR_single_after_interval_token1, 1), (aux_sym_ERR_interval_after_priority_token1, 1),
     (sym_line_comment, 3), (anon_sym_LBRACE, 1), (anon_sym_extern, 1), (anon_sym_RBRACE, 1),
     (anon_sym_LPAREN, 1), (anon_sym_params, 1), (anon_sym_RPAREN, 1), (anon_sym_result, 1),
     (anon_sym_wasm, 1), (sym_pragma_string, 1), (anon_sym_warn, 1), (anon_sym_info, 1),
     (anon_sym_allow, 1), (aux_sym_test_pragma_token1, 1), (aux_sym_once_pragma_token1, 1),
     (aux_sym_must_call_pragma_token1, 1), (aux_sym_export_pragma_token1, 1), (anon_sym_POUND, 1),
     (sym__explicit_signed_int, 1), (sym_binary_int, 1), (sym_octal_int, 1),
     (sym__explicit_signed_real, 1), (aux_sym_bool_literal_with_string_token1, 1),
     (aux_sym_bool_literal_with_string_token2, 1), (aux_sym_bool_literal_with_string_token3, 1),
     (anon_sym_0, 1), (anon_sym_1, 1), (sym_d_byte_char_str, 1), (aux_sym_time_token1, 1),
     (anon_sym_PLUS, 1), (anon_sym_DASH, 1), (aux_sym_sign_int_type_name_token1, 1),
     (aux_sym_sign_int_type_name_token2, 1), (aux_sym_sign_int_type_name_token3, 1),
     (aux_sym_sign_int_type_name_token4, 1), (aux_sym_unsign_int_type_name_token1, 1),
     (aux_sym_unsign_int_type_name_token2, 1), (aux_sym_unsign_int_type_name_token3, 1),
     (aux_sym_unsign_int_type_name_token4, 1), (aux_sym_real_type_name_token1, 1),
     (aux_sym_real_type_name_token2, 1), (aux_sym_string_name_token1, 1), (anon_sym_LBRACK, 1),
     (anon_sym_RBRACK, 1), (aux_sym_char_name_token1, 1), (sym_time_type_name, 1),
     (sym_l_time_type_name, 1), (sym_date_type_name, 1), (sym_l_date_type_name, 1),
     (sym_tod_type_name, 1), (sym_ltod_type_name, 1), (sym_dt_type_name, 1),
     (sym_l_dt_type_name, 1), (aux_sym_bit_str_type_name_token1, 1),
     (aux_sym_multibits_type_name_token1, 1), (aux_sym_multibits_type_name_token2, 1),
     (aux_sym_multibits_type_name_token3, 1), (aux_sym_multibits_type_name_token4, 1),
     (aux_sym_data_type_decl_token1, 1), (anon_sym_SEMI, 1), (aux_sym_data_type_decl_token2, 1),
     (anon_sym_DOT_DOT, 1), (aux_sym_array_type_spec_token1, 1),
     (aux_sym_array_type_spec_token2, 1), (aux_sym_struct_type_spec_token1, 1),
     (aux_sym_struct_type_spec_token2, 1), (aux_sym_struct_type_spec_token3, 1),
     (aux_sym_relative_located_at_token1, 1), (anon_sym_PERCENT, 1), (anon_sym_STAR, 1),
     (anon_sym_DOT, 1), (aux_sym_ref_type_spec_token1, 1), (aux_sym_ref_value_token1, 1),
     (aux_sym_ref_addr_token1, 1), (anon_sym_CARET, 1), (aux_sym_input_decls_token1, 1),
     (aux_sym_input_decls_token2, 1), (aux_sym_edge_decl_token1, 1), (aux_sym_edge_decl_token2, 1),
     (aux_sym_output_decls_token1, 1), (aux_sym_in_out_decls_token1, 1),
     (aux_sym_var_decls_token1, 1), (aux_sym_temp_var_decls_token1, 1),
     (aux_sym_external_var_decls_token1, 1), (aux_sym_global_var_decls_token1, 1),
     (aux_sym_func_decl_token1, 1), (aux_sym_func_decl_token2, 1), (aux_sym_fb_decl_token1, 1),
     (aux_sym_fb_decl_token2, 1), (aux_sym_fb_decl_token3, 1), (aux_sym_fb_decl_token4, 1),
     (aux_sym_method_decl_token1, 1), (aux_sym_method_decl_token2, 1),
     (aux_sym_method_decl_token3, 1), (aux_sym_class_decl_token1, 1),
     (aux_sym_class_decl_token2, 1), (aux_sym_interface_decl_token1, 1),
     (aux_sym_interface_decl_token2, 1), (aux_sym_access_spec_token1, 1),
     (aux_sym_access_spec_token2, 1), (aux_sym_access_spec_token3, 1),
     (aux_sym_access_spec_token4, 1), (aux_sym_prog_decl_token1, 1), (aux_sym_prog_decl_token2, 1),
     (aux_sym_prog_access_decls_token1, 1), (aux_sym_initial_step_token1, 1),
     (aux_sym_initial_step_token2, 1), (aux_sym_step_token1, 1), (anon_sym_N, 1), (anon_sym_R, 1),
     (anon_sym_S, 1), (anon_sym_P, 1), (anon_sym_L, 1), (anon_sym_D, 1),
     (aux_sym_action_qualifier_token1, 1), (aux_sym_action_qualifier_token2, 1),
     (aux_sym_action_qualifier_token3, 1), (aux_sym_transition_token1, 1),
     (aux_sym_transition_token2, 1), (aux_sym_transition_token3, 1), (aux_sym_transition_token4, 1),
     (aux_sym_transition_token5, 1), (aux_sym_action_token1, 1), (aux_sym_action_token2, 1),
     (aux_sym_config_decl_token1, 1), (aux_sym_config_decl_token2, 1),
     (aux_sym_resource_decl_token1, 1), (aux_sym_resource_decl_token2, 1),
     (aux_sym_resource_decl_token3, 1), (aux_sym_access_direction_token1, 1),
     (aux_sym_access_direction_token2, 1), (aux_sym_task_config_token1, 1),
     (aux_sym_prog_config_token1, 1), (aux_sym_config_init_token1, 1),
     (aux_sym_namespace_decl_token1, 1), (aux_sym_namespace_decl_token2, 1),
     (aux_sym_using_directive_token1, 1), (anon_sym_SLASH, 1), (anon_sym_STAR_STAR, 1),
     (anon_sym_AMP, 1), (anon_sym_PIPE, 1), (anon_sym_LT_GT, 1), (anon_sym_LT, 1), (anon_sym_GT, 1),
     (anon_sym_LT_EQ, 1), (anon_sym_GT_EQ, 1), (aux_sym_fold_operator_token1, 1),
     (aux_sym_fold_operator_token2, 1), (aux_sym_or_operator_token1, 1),
     (aux_sym_xor_operator_token1, 1), (aux_sym_and_operator_token1, 1), (aux_sym_mult_token1, 1),
     (aux_sym_unary_token1, 1), (aux_sym__stmt_token1, 1), (aux_sym__stmt_token2, 1),
     (aux_sym__stmt_token3, 1), (aux_sym_if_stmt_token1, 1), (aux_sym_if_stmt_token2, 1),
     (aux_sym_if_stmt_token3, 1), (aux_sym_if_stmt_token4, 1), (aux_sym_else_if_stmt_token1, 1),
     (aux_sym_case_stmt_token1, 1), (aux_sym_case_stmt_token2, 1), (aux_sym_for_stmt_token1, 1),
     (aux_sym_for_stmt_token2, 1), (aux_sym_for_stmt_token3, 1), (aux_sym_for_list_token1, 1),
     (aux_sym_while_stmt_token1, 1), (aux_sym_while_stmt_token2, 1),
     (aux_sym_repeat_stmt_token1, 1), (aux_sym_repeat_stmt_token2, 1),
     (aux_sym_repeat_stmt_token3, 1), (aux_sym_raise_stmt_token1, 1), (aux_sym_try_stmt_token1, 1),
     (aux_sym_try_stmt_token2, 1), (aux_sym_catch_clause_token1, 1),
     (aux_sym_finally_clause_token1, 1), (aux_sym_ERR_end_try_spelling_token1, 1),
     (anon_sym_LPAREN_RPAREN, 1), (anon_sym_I, 1), (anon_sym_Q, 1), (anon_sym_M, 1),
     (sym_ld_rung, 1), (sym_fbd_network, 1), (sym_c_style_comment, 3),
     (sym_pascal_style_comment, 3), (sym_pragma, 3), (sym__minus_before_base, 1),
     (sym__plus_before_base, 1)]"

lemma ts_parse_row_0_scan: "row_scan tokens_0_1 0 ts_parse_row_0 = Some (Suc (Suc (Suc (Suc (Suc (Suc 0))))))"
  unfolding ts_parse_row_0_def by simp

text \<open>Lines 52992 to 53032.\<close>

definition ts_parse_row_1 :: parse_row where
  "ts_parse_row_1 =
    [(sym_source_file, 8555), (sym_extern_pragma, 7490), (sym_warn_pragma, 7490),
     (sym_allow_pragma, 7490), (sym_test_pragma, 7490), (sym_once_pragma, 7490),
     (sym_must_call_pragma, 7490), (sym_export_pragma, 7490), (sym_pou_pragma, 3411),
     (sym_data_type_decl, 3269), (sym_func_decl, 3269), (sym_fb_decl, 3269), (sym_class_decl, 3269),
     (sym_interface_decl, 3269), (sym_prog_decl, 3269), (sym_config_decl, 3269),
     (sym_namespace_decl, 3269), (sym_using_directive, 3269), (aux_sym_source_file_repeat1, 3269),
     (aux_sym_func_decl_repeat1, 3411), (ts_builtin_sym_end, 5), (sym_line_comment, 3),
     (anon_sym_LBRACE, 7), (aux_sym_test_pragma_token1, 9), (aux_sym_once_pragma_token1, 11),
     (aux_sym_must_call_pragma_token1, 13), (aux_sym_export_pragma_token1, 15),
     (aux_sym_data_type_decl_token1, 17), (aux_sym_func_decl_token1, 19),
     (aux_sym_fb_decl_token1, 21), (aux_sym_class_decl_token1, 23),
     (aux_sym_interface_decl_token1, 25), (aux_sym_prog_decl_token1, 27),
     (aux_sym_config_decl_token1, 29), (aux_sym_namespace_decl_token1, 31),
     (aux_sym_using_directive_token1, 33), (sym_c_style_comment, 3), (sym_pascal_style_comment, 3),
     (sym_pragma, 3)]"

lemma ts_parse_row_1_scan: "row_scan tokens_63_2 0 ts_parse_row_1 = Some (Suc (Suc (Suc (Suc 0))))"
  unfolding ts_parse_row_1_def by simp

text \<open>Lines 53033 to 53190.\<close>

definition ts_parse_row_2 :: parse_row where
  "ts_parse_row_2 =
    [(sym_ERR_unexpected_this_in_path, 2018), (sym_ERR_unexpected_super_in_path, 2018),
     (sym_constant, 2089), (sym_numeric_literal, 2090), (sym_int_literal, 2092),
     (sym_int_kind, 9320), (sym_signed_int, 2111), (sym_real_literal, 2092),
     (sym_signed_real_value, 2105), (sym_bool_literal, 2090), (sym_bool_literal_with_string, 2114),
     (sym_bool_literal_with_numeric, 2114), (sym_char_literal, 2090), (sym_char_str, 2120),
     (sym_time_literal, 2090), (sym_duration, 2123), (sym_time, 2087), (sym_ltime, 2087),
     (sym_time_of_day, 2123), (sym_tod, 2091), (sym_ltod, 2091), (sym_date, 2123),
     (sym_short_date, 2066), (sym_long_date, 2066), (sym_date_and_time, 2123),
     (sym_short_date_and_time, 2067), (sym_long_date_and_time, 2067), (sym_int_type_name, 9449),
     (sym_sign_int_type_name, 2352), (sym_unsign_int_type_name, 2352), (sym_real_type_name, 9455),
     (sym_string_type_name, 9457), (sym_string_name, 2353), (sym_char_name, 2353),
     (sym_multibits_type_name, 9449), (sym_enum_value, 2089), (sym_direct_variable, 2060),
     (sym_ref_value, 2089), (sym_ref_addr, 2096), (sym_deref_expression, 2016),
     (sym_variable, 2054), (sym_var_access, 2016), (sym__expression, 2340),
     (sym_fold_expression, 2088), (sym_pack_element, 2088), (sym__primary_expression, 2088),
     (sym_parenthesized_expression, 2089), (sym_boolean_operator, 2088), (sym_or_operator, 2093),
     (sym_xor_operator, 2093), (sym_and_operator, 2093), (sym_comparison_operator, 2088),
     (sym_eq_operator, 2102), (sym_ord_operator, 2102), (sym_add_operator, 2088),
     (sym_mult_operator, 2088), (sym_power_operator, 2088), (sym_unary_operator, 2088),
     (sym_unary, 61), (sym_variable_access, 2089), (sym_func_call, 2089),
     (sym_begin_path_expression, 2049), (sym_invocation, 2044), (sym_any_invocation, 2043),
     (sym_this_invocation, 2019), (sym_super_invocation, 2019), (sym_super_body_invocation, 2043),
     (sym_path_expression, 2002), (sym_field_expression, 2016), (sym_index_expression, 2016),
     (sym_identifier, 35), (aux_sym_ERR_unexpected_this_in_path_token1, 37),
     (aux_sym_ERR_unexpected_super_in_path_token1, 39), (sym_line_comment, 3),
     (anon_sym_LBRACE, 41), (anon_sym_LPAREN, 43), (aux_sym_test_pragma_token1, 45),
     (aux_sym_once_pragma_token1, 45), (aux_sym_must_call_pragma_token1, 45),
     (aux_sym_export_pragma_token1, 45), (sym_unsigned_int, 47), (sym__explicit_signed_int, 47),
     (sym_binary_int, 49), (sym_octal_int, 49), (sym_hex_int, 51), (sym__explicit_signed_real, 53),
     (sym_real_value, 53), (aux_sym_bool_literal_with_string_token1, 55),
     (aux_sym_bool_literal_with_string_token2, 57), (aux_sym_bool_literal_with_string_token3, 57),
     (sym_s_byte_char_str, 59), (sym_d_byte_char_str, 59), (aux_sym_time_token1, 61),
     (anon_sym_PLUS, 63), (anon_sym_DASH, 63), (aux_sym_ltime_token1, 65), (aux_sym_tod_token1, 67),
     (aux_sym_ltod_token1, 69), (aux_sym_short_date_token1, 71), (aux_sym_long_date_token1, 73),
     (aux_sym_short_date_and_time_token1, 75), (aux_sym_long_date_and_time_token1, 77),
     (aux_sym_sign_int_type_name_token1, 79), (aux_sym_sign_int_type_name_token2, 79),
     (aux_sym_sign_int_type_name_token3, 79), (aux_sym_sign_int_type_name_token4, 79),
     (aux_sym_unsign_int_type_name_token1, 81), (aux_sym_unsign_int_type_name_token2, 81),
     (aux_sym_unsign_int_type_name_token3, 81), (aux_sym_unsign_int_type_name_token4, 81),
     (aux_sym_real_type_name_token1, 83), (aux_sym_real_type_name_token2, 83),
     (aux_sym_string_name_token1, 85), (aux_sym_char_name_token1, 87),
     (aux_sym_multibits_type_name_token1, 89), (aux_sym_multibits_type_name_token2, 89),
     (aux_sym_multibits_type_name_token3, 89), (aux_sym_multibits_type_name_token4, 89),
     (anon_sym_SEMI, 45), (anon_sym_PERCENT, 91), (aux_sym_ref_value_token1, 93),
     (aux_sym_ref_addr_token1, 95), (anon_sym_DOT_DOT_DOT, 97), (aux_sym_func_decl_token2, 41),
     (aux_sym_fb_decl_token4, 41), (aux_sym_method_decl_token1, 41),
     (aux_sym_method_decl_token3, 41), (aux_sym_prog_decl_token2, 41), (aux_sym_action_token2, 41),
     (aux_sym_unary_token1, 63), (aux_sym__stmt_token1, 41), (aux_sym__stmt_token2, 41),
     (aux_sym__stmt_token3, 41), (aux_sym_if_stmt_token1, 41), (aux_sym_if_stmt_token3, 41),
     (aux_sym_if_stmt_token4, 41), (aux_sym_else_if_stmt_token1, 41),
     (aux_sym_case_stmt_token1, 41), (aux_sym_case_stmt_token2, 41), (aux_sym_for_stmt_token1, 41),
     (aux_sym_for_stmt_token3, 41), (aux_sym_while_stmt_token1, 41),
     (aux_sym_while_stmt_token2, 41), (aux_sym_repeat_stmt_token1, 41),
     (aux_sym_repeat_stmt_token2, 41), (aux_sym_raise_stmt_token1, 41),
     (aux_sym_try_stmt_token1, 41), (aux_sym_try_stmt_token2, 41),
     (aux_sym_catch_clause_token1, 41), (aux_sym_finally_clause_token1, 41),
     (aux_sym_ERR_end_try_spelling_token1, 41), (sym_c_style_comment, 3),
     (sym_pascal_style_comment, 3), (sym_pragma, 3), (sym__minus_before_base, 99),
     (sym__plus_before_base, 99)]"

lemma ts_parse_row_2_scan: "row_scan tokens_4_1 0 ts_parse_row_2 = Some (Suc (Suc (Suc (Suc (Suc (Suc 0))))))"
  unfolding ts_parse_row_2_def by simp

text \<open>Lines 53191 to 53337.\<close>

definition ts_parse_row_3 :: parse_row where
  "ts_parse_row_3 =
    [(sym_ERR_unexpected_this_in_path, 1132), (sym_ERR_unexpected_super_in_path, 1132),
     (sym_constant, 1189), (sym_numeric_literal, 1180), (sym_int_literal, 1182),
     (sym_int_kind, 10047), (sym_signed_int, 1200), (sym_real_literal, 1182),
     (sym_signed_real_value, 1183), (sym_bool_literal, 1180), (sym_bool_literal_with_string, 1185),
     (sym_bool_literal_with_numeric, 1185), (sym_char_literal, 1180), (sym_char_str, 1187),
     (sym_time_literal, 1180), (sym_duration, 1169), (sym_time, 1191), (sym_ltime, 1191),
     (sym_time_of_day, 1169), (sym_tod, 1192), (sym_ltod, 1192), (sym_date, 1169),
     (sym_short_date, 1193), (sym_long_date, 1193), (sym_date_and_time, 1169),
     (sym_short_date_and_time, 1194), (sym_long_date_and_time, 1194), (sym_int_type_name, 9449),
     (sym_sign_int_type_name, 2352), (sym_unsign_int_type_name, 2352), (sym_real_type_name, 10048),
     (sym_string_type_name, 10049), (sym_string_name, 2353), (sym_char_name, 2353),
     (sym_multibits_type_name, 9449), (sym_enum_value, 1189), (sym_direct_variable, 1149),
     (sym_ref_value, 1189), (sym_ref_addr, 1164), (sym_deref_expression, 1130),
     (sym_variable, 1146), (sym_var_access, 1130), (sym__expression, 1116),
     (sym_fold_expression, 1195), (sym_pack_element, 1195), (sym__primary_expression, 1195),
     (sym_parenthesized_expression, 1189), (sym_boolean_operator, 1195), (sym_or_operator, 1196),
     (sym_xor_operator, 1196), (sym_and_operator, 1196), (sym_comparison_operator, 1195),
     (sym_eq_operator, 1197), (sym_ord_operator, 1197), (sym_add_operator, 1195),
     (sym_mult_operator, 1195), (sym_power_operator, 1195), (sym_unary_operator, 1195),
     (sym_unary, 60), (sym_variable_access, 1189), (sym_func_call, 1189),
     (sym_begin_path_expression, 1138), (sym_invocation, 1145), (sym_any_invocation, 1139),
     (sym_this_invocation, 1136), (sym_super_invocation, 1136), (sym_super_body_invocation, 1139),
     (sym_path_expression, 1109), (sym_field_expression, 1130), (sym_index_expression, 1130),
     (sym_identifier, 101), (aux_sym_ERR_unexpected_this_in_path_token1, 103),
     (aux_sym_ERR_unexpected_super_in_path_token1, 105), (sym_line_comment, 3),
     (anon_sym_LBRACE, 41), (anon_sym_LPAREN, 107), (aux_sym_test_pragma_token1, 45),
     (aux_sym_once_pragma_token1, 45), (aux_sym_must_call_pragma_token1, 45),
     (aux_sym_export_pragma_token1, 45), (sym_unsigned_int, 109), (sym__explicit_signed_int, 109),
     (sym_binary_int, 111), (sym_octal_int, 111), (sym_hex_int, 113),
     (sym__explicit_signed_real, 115), (sym_real_value, 115),
     (aux_sym_bool_literal_with_string_token1, 117), (aux_sym_bool_literal_with_string_token2, 119),
     (aux_sym_bool_literal_with_string_token3, 119), (sym_s_byte_char_str, 121),
     (sym_d_byte_char_str, 121), (aux_sym_time_token1, 123), (anon_sym_PLUS, 63),
     (anon_sym_DASH, 63), (aux_sym_ltime_token1, 125), (aux_sym_tod_token1, 127),
     (aux_sym_ltod_token1, 129), (aux_sym_short_date_token1, 131), (aux_sym_long_date_token1, 133),
     (aux_sym_short_date_and_time_token1, 135), (aux_sym_long_date_and_time_token1, 137),
     (aux_sym_sign_int_type_name_token1, 79), (aux_sym_sign_int_type_name_token2, 79),
     (aux_sym_sign_int_type_name_token3, 79), (aux_sym_sign_int_type_name_token4, 79),
     (aux_sym_unsign_int_type_name_token1, 81), (aux_sym_unsign_int_type_name_token2, 81),
     (aux_sym_unsign_int_type_name_token3, 81), (aux_sym_unsign_int_type_name_token4, 81),
     (aux_sym_real_type_name_token1, 83), (aux_sym_real_type_name_token2, 83),
     (aux_sym_string_name_token1, 85), (aux_sym_char_name_token1, 87),
     (aux_sym_multibits_type_name_token1, 89), (aux_sym_multibits_type_name_token2, 89),
     (aux_sym_multibits_type_name_token3, 89), (aux_sym_multibits_type_name_token4, 89),
     (anon_sym_SEMI, 45), (anon_sym_PERCENT, 139), (aux_sym_ref_value_token1, 141),
     (aux_sym_ref_addr_token1, 143), (anon_sym_DOT_DOT_DOT, 145), (aux_sym_method_decl_token1, 41),
     (aux_sym_unary_token1, 63), (aux_sym__stmt_token1, 41), (aux_sym__stmt_token2, 41),
     (aux_sym__stmt_token3, 41), (aux_sym_if_stmt_token1, 41), (aux_sym_if_stmt_token3, 41),
     (aux_sym_case_stmt_token1, 41), (aux_sym_case_stmt_token2, 41), (aux_sym_for_stmt_token1, 41),
     (aux_sym_while_stmt_token1, 41), (aux_sym_repeat_stmt_token1, 41),
     (aux_sym_raise_stmt_token1, 41), (aux_sym_try_stmt_token1, 41), (aux_sym_try_stmt_token2, 41),
     (aux_sym_catch_clause_token1, 41), (aux_sym_finally_clause_token1, 41),
     (sym_c_style_comment, 3), (sym_pascal_style_comment, 3), (sym_pragma, 3),
     (sym__minus_before_base, 99), (sym__plus_before_base, 99)]"

lemma ts_parse_row_3_scan: "row_scan tokens_4_1 0 ts_parse_row_3 = Some (Suc (Suc (Suc (Suc (Suc (Suc 0))))))"
  unfolding ts_parse_row_3_def by simp

text \<open>Lines 53338 to 53474.\<close>

definition ts_parse_row_4 :: parse_row where
  "ts_parse_row_4 =
    [(sym_ERR_unexpected_this_in_path, 2018), (sym_ERR_unexpected_super_in_path, 2018),
     (sym_ERR_func_call_in_init, 7950), (sym_constant, 2089), (sym_numeric_literal, 2090),
     (sym_int_literal, 2092), (sym_int_kind, 9320), (sym_signed_int, 2111),
     (sym_real_literal, 2092), (sym_signed_real_value, 2105), (sym_bool_literal, 2090),
     (sym_bool_literal_with_string, 2114), (sym_bool_literal_with_numeric, 2114),
     (sym_char_literal, 2090), (sym_char_str, 2120), (sym_time_literal, 2090), (sym_duration, 2123),
     (sym_time, 2087), (sym_ltime, 2087), (sym_time_of_day, 2123), (sym_tod, 2091),
     (sym_ltod, 2091), (sym_date, 2123), (sym_short_date, 2066), (sym_long_date, 2066),
     (sym_date_and_time, 2123), (sym_short_date_and_time, 2067), (sym_long_date_and_time, 2067),
     (sym_int_type_name, 9449), (sym_sign_int_type_name, 2352), (sym_unsign_int_type_name, 2352),
     (sym_real_type_name, 9455), (sym_string_type_name, 9457), (sym_string_name, 2353),
     (sym_char_name, 2353), (sym_multibits_type_name, 9449), (sym_enum_value, 2089),
     (sym_init_elem, 8064), (sym__array_item, 8064), (sym_array_init, 7950), (sym_element_at, 8064),
     (sym_array_index_elem, 7950), (sym_array_values, 8368), (sym_struct_init, 7950),
     (sym_struct_elem, 7950), (sym_direct_variable, 2060), (sym_ref_value, 2089),
     (sym_ref_addr, 2096), (sym_deref_expression, 2016), (sym_variable, 2054),
     (sym_var_access, 2016), (sym__expression, 3268), (sym_fold_expression, 2088),
     (sym_pack_element, 2088), (sym__primary_expression, 2088),
     (sym_parenthesized_expression, 2089), (sym_boolean_operator, 2088), (sym_or_operator, 2093),
     (sym_xor_operator, 2093), (sym_and_operator, 2093), (sym_comparison_operator, 2088),
     (sym_eq_operator, 2102), (sym_ord_operator, 2102), (sym_add_operator, 2088),
     (sym_mult_operator, 2088), (sym_power_operator, 2088), (sym_unary_operator, 2088),
     (sym_unary, 61), (sym_constant_expr, 8070), (sym_variable_access, 2089), (sym_func_call, 3354),
     (sym_begin_path_expression, 2049), (sym_invocation, 2044), (sym_any_invocation, 2043),
     (sym_this_invocation, 2019), (sym_super_invocation, 2019), (sym_super_body_invocation, 2043),
     (sym_path_expression, 2002), (sym_field_expression, 2016), (sym_index_expression, 2016),
     (sym_index_value, 8383), (sym_identifier, 147),
     (aux_sym_ERR_unexpected_this_in_path_token1, 37),
     (aux_sym_ERR_unexpected_super_in_path_token1, 39), (sym_line_comment, 3),
     (anon_sym_LPAREN, 149), (sym_unsigned_int, 151), (sym__explicit_signed_int, 47),
     (sym_binary_int, 49), (sym_octal_int, 49), (sym_hex_int, 51), (sym__explicit_signed_real, 53),
     (sym_real_value, 53), (aux_sym_bool_literal_with_string_token1, 55),
     (aux_sym_bool_literal_with_string_token2, 57), (aux_sym_bool_literal_with_string_token3, 57),
     (sym_s_byte_char_str, 59), (sym_d_byte_char_str, 59), (aux_sym_time_token1, 61),
     (anon_sym_PLUS, 63), (anon_sym_DASH, 63), (aux_sym_ltime_token1, 65), (aux_sym_tod_token1, 67),
     (aux_sym_ltod_token1, 69), (aux_sym_short_date_token1, 71), (aux_sym_long_date_token1, 73),
     (aux_sym_short_date_and_time_token1, 75), (aux_sym_long_date_and_time_token1, 77),
     (aux_sym_sign_int_type_name_token1, 79), (aux_sym_sign_int_type_name_token2, 79),
     (aux_sym_sign_int_type_name_token3, 79), (aux_sym_sign_int_type_name_token4, 79),
     (aux_sym_unsign_int_type_name_token1, 81), (aux_sym_unsign_int_type_name_token2, 81),
     (aux_sym_unsign_int_type_name_token3, 81), (aux_sym_unsign_int_type_name_token4, 81),
     (aux_sym_real_type_name_token1, 83), (aux_sym_real_type_name_token2, 83),
     (aux_sym_string_name_token1, 85), (anon_sym_LBRACK, 153), (aux_sym_char_name_token1, 87),
     (aux_sym_multibits_type_name_token1, 89), (aux_sym_multibits_type_name_token2, 89),
     (aux_sym_multibits_type_name_token3, 89), (aux_sym_multibits_type_name_token4, 89),
     (anon_sym_PERCENT, 91), (aux_sym_ref_value_token1, 93), (aux_sym_ref_addr_token1, 95),
     (anon_sym_DOT_DOT_DOT, 97), (aux_sym_unary_token1, 63), (sym_c_style_comment, 3),
     (sym_pascal_style_comment, 3), (sym_pragma, 3), (sym__minus_before_base, 99),
     (sym__plus_before_base, 99)]"

lemma ts_parse_row_4_scan: "row_scan tokens_4_1 0 ts_parse_row_4 = Some (Suc (Suc (Suc (Suc (Suc (Suc 0))))))"
  unfolding ts_parse_row_4_def by simp

text \<open>Lines 53475 to 53610.\<close>

definition ts_parse_row_5 :: parse_row where
  "ts_parse_row_5 =
    [(sym_ERR_unexpected_this_in_path, 2018), (sym_ERR_unexpected_super_in_path, 2018),
     (sym_ERR_func_call_in_init, 7950), (sym_constant, 2089), (sym_numeric_literal, 2090),
     (sym_int_literal, 2092), (sym_int_kind, 9320), (sym_signed_int, 2111),
     (sym_real_literal, 2092), (sym_signed_real_value, 2105), (sym_bool_literal, 2090),
     (sym_bool_literal_with_string, 2114), (sym_bool_literal_with_numeric, 2114),
     (sym_char_literal, 2090), (sym_char_str, 2120), (sym_time_literal, 2090), (sym_duration, 2123),
     (sym_time, 2087), (sym_ltime, 2087), (sym_time_of_day, 2123), (sym_tod, 2091),
     (sym_ltod, 2091), (sym_date, 2123), (sym_short_date, 2066), (sym_long_date, 2066),
     (sym_date_and_time, 2123), (sym_short_date_and_time, 2067), (sym_long_date_and_time, 2067),
     (sym_int_type_name, 9449), (sym_sign_int_type_name, 2352), (sym_unsign_int_type_name, 2352),
     (sym_real_type_name, 9455), (sym_string_type_name, 9457), (sym_string_name, 2353),
     (sym_char_name, 2353), (sym_multibits_type_name, 9449), (sym_enum_value, 2089),
     (sym_init_elem, 7953), (sym__array_item, 7953), (sym_array_init, 7950), (sym_element_at, 7953),
     (sym_array_index_elem, 7950), (sym_struct_init, 7950), (sym_struct_elem, 7950),
     (sym_direct_variable, 2060), (sym_ref_value, 2089), (sym_ref_addr, 2096),
     (sym_deref_expression, 2016), (sym_variable, 2054), (sym_var_access, 2016),
     (sym__expression, 3268), (sym_fold_expression, 2088), (sym_pack_element, 2088),
     (sym__primary_expression, 2088), (sym_parenthesized_expression, 2089),
     (sym_boolean_operator, 2088), (sym_or_operator, 2093), (sym_xor_operator, 2093),
     (sym_and_operator, 2093), (sym_comparison_operator, 2088), (sym_eq_operator, 2102),
     (sym_ord_operator, 2102), (sym_add_operator, 2088), (sym_mult_operator, 2088),
     (sym_power_operator, 2088), (sym_unary_operator, 2088), (sym_unary, 61),
     (sym_constant_expr, 7950), (sym_variable_access, 2089), (sym_func_call, 3354),
     (sym_begin_path_expression, 2049), (sym_invocation, 2044), (sym_any_invocation, 2043),
     (sym_this_invocation, 2019), (sym_super_invocation, 2019), (sym_super_body_invocation, 2043),
     (sym_path_expression, 2002), (sym_field_expression, 2016), (sym_index_expression, 2016),
     (sym_identifier, 147), (aux_sym_ERR_unexpected_this_in_path_token1, 37),
     (aux_sym_ERR_unexpected_super_in_path_token1, 39), (sym_line_comment, 3),
     (anon_sym_LPAREN, 149), (sym_unsigned_int, 151), (sym__explicit_signed_int, 47),
     (sym_binary_int, 49), (sym_octal_int, 49), (sym_hex_int, 51), (sym__explicit_signed_real, 53),
     (sym_real_value, 53), (aux_sym_bool_literal_with_string_token1, 55),
     (aux_sym_bool_literal_with_string_token2, 57), (aux_sym_bool_literal_with_string_token3, 57),
     (sym_s_byte_char_str, 59), (sym_d_byte_char_str, 59), (aux_sym_time_token1, 61),
     (anon_sym_PLUS, 63), (anon_sym_DASH, 63), (aux_sym_ltime_token1, 65), (aux_sym_tod_token1, 67),
     (aux_sym_ltod_token1, 69), (aux_sym_short_date_token1, 71), (aux_sym_long_date_token1, 73),
     (aux_sym_short_date_and_time_token1, 75), (aux_sym_long_date_and_time_token1, 77),
     (aux_sym_sign_int_type_name_token1, 79), (aux_sym_sign_int_type_name_token2, 79),
     (aux_sym_sign_int_type_name_token3, 79), (aux_sym_sign_int_type_name_token4, 79),
     (aux_sym_unsign_int_type_name_token1, 81), (aux_sym_unsign_int_type_name_token2, 81),
     (aux_sym_unsign_int_type_name_token3, 81), (aux_sym_unsign_int_type_name_token4, 81),
     (aux_sym_real_type_name_token1, 83), (aux_sym_real_type_name_token2, 83),
     (aux_sym_string_name_token1, 85), (anon_sym_LBRACK, 153), (anon_sym_RBRACK, 155),
     (aux_sym_char_name_token1, 87), (aux_sym_multibits_type_name_token1, 89),
     (aux_sym_multibits_type_name_token2, 89), (aux_sym_multibits_type_name_token3, 89),
     (aux_sym_multibits_type_name_token4, 89), (anon_sym_PERCENT, 91),
     (aux_sym_ref_value_token1, 93), (aux_sym_ref_addr_token1, 95), (anon_sym_DOT_DOT_DOT, 97),
     (aux_sym_unary_token1, 63), (sym_c_style_comment, 3), (sym_pascal_style_comment, 3),
     (sym_pragma, 3), (sym__minus_before_base, 99), (sym__plus_before_base, 99)]"

lemma ts_parse_row_5_scan: "row_scan tokens_4_1 0 ts_parse_row_5 = Some (Suc (Suc (Suc (Suc (Suc (Suc 0))))))"
  unfolding ts_parse_row_5_def by simp

text \<open>Lines 53611 to 53746.\<close>

definition ts_parse_row_6 :: parse_row where
  "ts_parse_row_6 =
    [(sym_ERR_unexpected_this_in_path, 2018), (sym_ERR_unexpected_super_in_path, 2018),
     (sym_ERR_func_call_in_init, 7950), (sym_constant, 2089), (sym_numeric_literal, 2090),
     (sym_int_literal, 2092), (sym_int_kind, 9320), (sym_signed_int, 2111),
     (sym_real_literal, 2092), (sym_signed_real_value, 2105), (sym_bool_literal, 2090),
     (sym_bool_literal_with_string, 2114), (sym_bool_literal_with_numeric, 2114),
     (sym_char_literal, 2090), (sym_char_str, 2120), (sym_time_literal, 2090), (sym_duration, 2123),
     (sym_time, 2087), (sym_ltime, 2087), (sym_time_of_day, 2123), (sym_tod, 2091),
     (sym_ltod, 2091), (sym_date, 2123), (sym_short_date, 2066), (sym_long_date, 2066),
     (sym_date_and_time, 2123), (sym_short_date_and_time, 2067), (sym_long_date_and_time, 2067),
     (sym_int_type_name, 9449), (sym_sign_int_type_name, 2352), (sym_unsign_int_type_name, 2352),
     (sym_real_type_name, 9455), (sym_string_type_name, 9457), (sym_string_name, 2353),
     (sym_char_name, 2353), (sym_multibits_type_name, 9449), (sym_enum_value, 2089),
     (sym_init_elem, 8064), (sym__array_item, 8064), (sym_array_init, 7950), (sym_element_at, 8064),
     (sym_array_index_elem, 7950), (sym_array_values, 8368), (sym_struct_init, 7950),
     (sym_struct_elem, 7950), (sym_direct_variable, 2060), (sym_ref_value, 2089),
     (sym_ref_addr, 2096), (sym_deref_expression, 2016), (sym_variable, 2054),
     (sym_var_access, 2016), (sym__expression, 3268), (sym_fold_expression, 2088),
     (sym_pack_element, 2088), (sym__primary_expression, 2088),
     (sym_parenthesized_expression, 2089), (sym_boolean_operator, 2088), (sym_or_operator, 2093),
     (sym_xor_operator, 2093), (sym_and_operator, 2093), (sym_comparison_operator, 2088),
     (sym_eq_operator, 2102), (sym_ord_operator, 2102), (sym_add_operator, 2088),
     (sym_mult_operator, 2088), (sym_power_operator, 2088), (sym_unary_operator, 2088),
     (sym_unary, 61), (sym_constant_expr, 7950), (sym_variable_access, 2089), (sym_func_call, 3354),
     (sym_begin_path_expression, 2049), (sym_invocation, 2044), (sym_any_invocation, 2043),
     (sym_this_invocation, 2019), (sym_super_invocation, 2019), (sym_super_body_invocation, 2043),
     (sym_path_expression, 2002), (sym_field_expression, 2016), (sym_index_expression, 2016),
     (sym_identifier, 147), (aux_sym_ERR_unexpected_this_in_path_token1, 37),
     (aux_sym_ERR_unexpected_super_in_path_token1, 39), (sym_line_comment, 3),
     (anon_sym_LPAREN, 149), (sym_unsigned_int, 151), (sym__explicit_signed_int, 47),
     (sym_binary_int, 49), (sym_octal_int, 49), (sym_hex_int, 51), (sym__explicit_signed_real, 53),
     (sym_real_value, 53), (aux_sym_bool_literal_with_string_token1, 55),
     (aux_sym_bool_literal_with_string_token2, 57), (aux_sym_bool_literal_with_string_token3, 57),
     (sym_s_byte_char_str, 59), (sym_d_byte_char_str, 59), (aux_sym_time_token1, 61),
     (anon_sym_PLUS, 63), (anon_sym_DASH, 63), (aux_sym_ltime_token1, 65), (aux_sym_tod_token1, 67),
     (aux_sym_ltod_token1, 69), (aux_sym_short_date_token1, 71), (aux_sym_long_date_token1, 73),
     (aux_sym_short_date_and_time_token1, 75), (aux_sym_long_date_and_time_token1, 77),
     (aux_sym_sign_int_type_name_token1, 79), (aux_sym_sign_int_type_name_token2, 79),
     (aux_sym_sign_int_type_name_token3, 79), (aux_sym_sign_int_type_name_token4, 79),
     (aux_sym_unsign_int_type_name_token1, 81), (aux_sym_unsign_int_type_name_token2, 81),
     (aux_sym_unsign_int_type_name_token3, 81), (aux_sym_unsign_int_type_name_token4, 81),
     (aux_sym_real_type_name_token1, 83), (aux_sym_real_type_name_token2, 83),
     (aux_sym_string_name_token1, 85), (anon_sym_LBRACK, 153), (aux_sym_char_name_token1, 87),
     (aux_sym_multibits_type_name_token1, 89), (aux_sym_multibits_type_name_token2, 89),
     (aux_sym_multibits_type_name_token3, 89), (aux_sym_multibits_type_name_token4, 89),
     (anon_sym_PERCENT, 91), (aux_sym_ref_value_token1, 93), (aux_sym_ref_addr_token1, 95),
     (anon_sym_DOT_DOT_DOT, 97), (aux_sym_unary_token1, 63), (sym_c_style_comment, 3),
     (sym_pascal_style_comment, 3), (sym_pragma, 3), (sym__minus_before_base, 99),
     (sym__plus_before_base, 99)]"

lemma ts_parse_row_6_scan: "row_scan tokens_4_1 0 ts_parse_row_6 = Some (Suc (Suc (Suc (Suc (Suc (Suc 0))))))"
  unfolding ts_parse_row_6_def by simp

text \<open>Lines 53747 to 53881.\<close>

definition ts_parse_row_7 :: parse_row where
  "ts_parse_row_7 =
    [(sym_ERR_unexpected_this_in_path, 2018), (sym_ERR_unexpected_super_in_path, 2018),
     (sym_ERR_func_call_in_init, 7950), (sym_constant, 2089), (sym_numeric_literal, 2090),
     (sym_int_literal, 2092), (sym_int_kind, 9320), (sym_signed_int, 2111),
     (sym_real_literal, 2092), (sym_signed_real_value, 2105), (sym_bool_literal, 2090),
     (sym_bool_literal_with_string, 2114), (sym_bool_literal_with_numeric, 2114),
     (sym_char_literal, 2090), (sym_char_str, 2120), (sym_time_literal, 2090), (sym_duration, 2123),
     (sym_time, 2087), (sym_ltime, 2087), (sym_time_of_day, 2123), (sym_tod, 2091),
     (sym_ltod, 2091), (sym_date, 2123), (sym_short_date, 2066), (sym_long_date, 2066),
     (sym_date_and_time, 2123), (sym_short_date_and_time, 2067), (sym_long_date_and_time, 2067),
     (sym_int_type_name, 9449), (sym_sign_int_type_name, 2352), (sym_unsign_int_type_name, 2352),
     (sym_real_type_name, 9455), (sym_string_type_name, 9457), (sym_string_name, 2353),
     (sym_char_name, 2353), (sym_multibits_type_name, 9449), (sym_enum_value, 2089),
     (sym_init_elem, 8003), (sym_array_init, 7950), (sym_array_index_elem, 7950),
     (sym_repeat_values, 9923), (sym_struct_init, 7950), (sym_struct_elem, 7950),
     (sym_direct_variable, 2060), (sym_ref_value, 2089), (sym_ref_addr, 2096),
     (sym_deref_expression, 2016), (sym_variable, 2054), (sym_var_access, 2016),
     (sym__expression, 3268), (sym_fold_expression, 2088), (sym_pack_element, 2088),
     (sym__primary_expression, 2088), (sym_parenthesized_expression, 2089),
     (sym_boolean_operator, 2088), (sym_or_operator, 2093), (sym_xor_operator, 2093),
     (sym_and_operator, 2093), (sym_comparison_operator, 2088), (sym_eq_operator, 2102),
     (sym_ord_operator, 2102), (sym_add_operator, 2088), (sym_mult_operator, 2088),
     (sym_power_operator, 2088), (sym_unary_operator, 2088), (sym_unary, 61),
     (sym_constant_expr, 7950), (sym_variable_access, 2089), (sym_func_call, 3354),
     (sym_begin_path_expression, 2049), (sym_invocation, 2044), (sym_any_invocation, 2043),
     (sym_this_invocation, 2019), (sym_super_invocation, 2019), (sym_super_body_invocation, 2043),
     (sym_path_expression, 2002), (sym_field_expression, 2016), (sym_index_expression, 2016),
     (sym_identifier, 147), (aux_sym_ERR_unexpected_this_in_path_token1, 37),
     (aux_sym_ERR_unexpected_super_in_path_token1, 39), (sym_line_comment, 3),
     (anon_sym_LPAREN, 149), (anon_sym_RPAREN, 157), (sym_unsigned_int, 151),
     (sym__explicit_signed_int, 47), (sym_binary_int, 49), (sym_octal_int, 49), (sym_hex_int, 51),
     (sym__explicit_signed_real, 53), (sym_real_value, 53),
     (aux_sym_bool_literal_with_string_token1, 55), (aux_sym_bool_literal_with_string_token2, 57),
     (aux_sym_bool_literal_with_string_token3, 57), (sym_s_byte_char_str, 59),
     (sym_d_byte_char_str, 59), (aux_sym_time_token1, 61), (anon_sym_PLUS, 63), (anon_sym_DASH, 63),
     (aux_sym_ltime_token1, 65), (aux_sym_tod_token1, 67), (aux_sym_ltod_token1, 69),
     (aux_sym_short_date_token1, 71), (aux_sym_long_date_token1, 73),
     (aux_sym_short_date_and_time_token1, 75), (aux_sym_long_date_and_time_token1, 77),
     (aux_sym_sign_int_type_name_token1, 79), (aux_sym_sign_int_type_name_token2, 79),
     (aux_sym_sign_int_type_name_token3, 79), (aux_sym_sign_int_type_name_token4, 79),
     (aux_sym_unsign_int_type_name_token1, 81), (aux_sym_unsign_int_type_name_token2, 81),
     (aux_sym_unsign_int_type_name_token3, 81), (aux_sym_unsign_int_type_name_token4, 81),
     (aux_sym_real_type_name_token1, 83), (aux_sym_real_type_name_token2, 83),
     (aux_sym_string_name_token1, 85), (anon_sym_LBRACK, 159), (aux_sym_char_name_token1, 87),
     (aux_sym_multibits_type_name_token1, 89), (aux_sym_multibits_type_name_token2, 89),
     (aux_sym_multibits_type_name_token3, 89), (aux_sym_multibits_type_name_token4, 89),
     (anon_sym_PERCENT, 91), (aux_sym_ref_value_token1, 93), (aux_sym_ref_addr_token1, 95),
     (anon_sym_DOT_DOT_DOT, 97), (aux_sym_unary_token1, 63), (sym_c_style_comment, 3),
     (sym_pascal_style_comment, 3), (sym_pragma, 3), (sym__minus_before_base, 99),
     (sym__plus_before_base, 99)]"

lemma ts_parse_row_7_scan: "row_scan tokens_4_1 0 ts_parse_row_7 = Some (Suc (Suc (Suc (Suc (Suc (Suc 0))))))"
  unfolding ts_parse_row_7_def by simp

text \<open>Lines 53882 to 54016.\<close>

definition ts_parse_row_8 :: parse_row where
  "ts_parse_row_8 =
    [(sym_ERR_unexpected_this_in_path, 2018), (sym_ERR_unexpected_super_in_path, 2018),
     (sym_ERR_func_call_in_init, 7950), (sym_constant, 2089), (sym_numeric_literal, 2090),
     (sym_int_literal, 2092), (sym_int_kind, 9320), (sym_signed_int, 2111),
     (sym_real_literal, 2092), (sym_signed_real_value, 2105), (sym_bool_literal, 2090),
     (sym_bool_literal_with_string, 2114), (sym_bool_literal_with_numeric, 2114),
     (sym_char_literal, 2090), (sym_char_str, 2120), (sym_time_literal, 2090), (sym_duration, 2123),
     (sym_time, 2087), (sym_ltime, 2087), (sym_time_of_day, 2123), (sym_tod, 2091),
     (sym_ltod, 2091), (sym_date, 2123), (sym_short_date, 2066), (sym_long_date, 2066),
     (sym_date_and_time, 2123), (sym_short_date_and_time, 2067), (sym_long_date_and_time, 2067),
     (sym_int_type_name, 9449), (sym_sign_int_type_name, 2352), (sym_unsign_int_type_name, 2352),
     (sym_real_type_name, 9455), (sym_string_type_name, 9457), (sym_string_name, 2353),
     (sym_char_name, 2353), (sym_multibits_type_name, 9449), (sym_enum_value, 2089),
     (sym_init_elem, 8188), (sym__array_item, 8188), (sym_array_init, 7950), (sym_element_at, 8188),
     (sym_array_index_elem, 7950), (sym_struct_init, 7950), (sym_struct_elem, 7950),
     (sym_direct_variable, 2060), (sym_ref_value, 2089), (sym_ref_addr, 2096),
     (sym_deref_expression, 2016), (sym_variable, 2054), (sym_var_access, 2016),
     (sym__expression, 3268), (sym_fold_expression, 2088), (sym_pack_element, 2088),
     (sym__primary_expression, 2088), (sym_parenthesized_expression, 2089),
     (sym_boolean_operator, 2088), (sym_or_operator, 2093), (sym_xor_operator, 2093),
     (sym_and_operator, 2093), (sym_comparison_operator, 2088), (sym_eq_operator, 2102),
     (sym_ord_operator, 2102), (sym_add_operator, 2088), (sym_mult_operator, 2088),
     (sym_power_operator, 2088), (sym_unary_operator, 2088), (sym_unary, 61),
     (sym_constant_expr, 7950), (sym_variable_access, 2089), (sym_func_call, 3354),
     (sym_begin_path_expression, 2049), (sym_invocation, 2044), (sym_any_invocation, 2043),
     (sym_this_invocation, 2019), (sym_super_invocation, 2019), (sym_super_body_invocation, 2043),
     (sym_path_expression, 2002), (sym_field_expression, 2016), (sym_index_expression, 2016),
     (sym_identifier, 147), (aux_sym_ERR_unexpected_this_in_path_token1, 37),
     (aux_sym_ERR_unexpected_super_in_path_token1, 39), (sym_line_comment, 3),
     (anon_sym_LPAREN, 149), (sym_unsigned_int, 151), (sym__explicit_signed_int, 47),
     (sym_binary_int, 49), (sym_octal_int, 49), (sym_hex_int, 51), (sym__explicit_signed_real, 53),
     (sym_real_value, 53), (aux_sym_bool_literal_with_string_token1, 55),
     (aux_sym_bool_literal_with_string_token2, 57), (aux_sym_bool_literal_with_string_token3, 57),
     (sym_s_byte_char_str, 59), (sym_d_byte_char_str, 59), (aux_sym_time_token1, 61),
     (anon_sym_PLUS, 63), (anon_sym_DASH, 63), (aux_sym_ltime_token1, 65), (aux_sym_tod_token1, 67),
     (aux_sym_ltod_token1, 69), (aux_sym_short_date_token1, 71), (aux_sym_long_date_token1, 73),
     (aux_sym_short_date_and_time_token1, 75), (aux_sym_long_date_and_time_token1, 77),
     (aux_sym_sign_int_type_name_token1, 79), (aux_sym_sign_int_type_name_token2, 79),
     (aux_sym_sign_int_type_name_token3, 79), (aux_sym_sign_int_type_name_token4, 79),
     (aux_sym_unsign_int_type_name_token1, 81), (aux_sym_unsign_int_type_name_token2, 81),
     (aux_sym_unsign_int_type_name_token3, 81), (aux_sym_unsign_int_type_name_token4, 81),
     (aux_sym_real_type_name_token1, 83), (aux_sym_real_type_name_token2, 83),
     (aux_sym_string_name_token1, 85), (anon_sym_LBRACK, 153), (aux_sym_char_name_token1, 87),
     (aux_sym_multibits_type_name_token1, 89), (aux_sym_multibits_type_name_token2, 89),
     (aux_sym_multibits_type_name_token3, 89), (aux_sym_multibits_type_name_token4, 89),
     (anon_sym_PERCENT, 91), (aux_sym_ref_value_token1, 93), (aux_sym_ref_addr_token1, 95),
     (anon_sym_DOT_DOT_DOT, 97), (aux_sym_unary_token1, 63), (sym_c_style_comment, 3),
     (sym_pascal_style_comment, 3), (sym_pragma, 3), (sym__minus_before_base, 99),
     (sym__plus_before_base, 99)]"

lemma ts_parse_row_8_scan: "row_scan tokens_4_1 0 ts_parse_row_8 = Some (Suc (Suc (Suc (Suc (Suc (Suc 0))))))"
  unfolding ts_parse_row_8_def by simp

text \<open>Lines 54017 to 54150.\<close>

definition ts_parse_row_9 :: parse_row where
  "ts_parse_row_9 =
    [(sym_ERR_unexpected_this_in_path, 2018), (sym_ERR_unexpected_super_in_path, 2018),
     (sym_ERR_func_call_in_init, 7950), (sym_constant, 2089), (sym_numeric_literal, 2090),
     (sym_int_literal, 2092), (sym_int_kind, 9320), (sym_signed_int, 2111),
     (sym_real_literal, 2092), (sym_signed_real_value, 2105), (sym_bool_literal, 2090),
     (sym_bool_literal_with_string, 2114), (sym_bool_literal_with_numeric, 2114),
     (sym_char_literal, 2090), (sym_char_str, 2120), (sym_time_literal, 2090), (sym_duration, 2123),
     (sym_time, 2087), (sym_ltime, 2087), (sym_time_of_day, 2123), (sym_tod, 2091),
     (sym_ltod, 2091), (sym_date, 2123), (sym_short_date, 2066), (sym_long_date, 2066),
     (sym_date_and_time, 2123), (sym_short_date_and_time, 2067), (sym_long_date_and_time, 2067),
     (sym_int_type_name, 9449), (sym_sign_int_type_name, 2352), (sym_unsign_int_type_name, 2352),
     (sym_real_type_name, 9455), (sym_string_type_name, 9457), (sym_string_name, 2353),
     (sym_char_name, 2353), (sym_multibits_type_name, 9449), (sym_enum_value, 2089),
     (sym_init_elem, 7951), (sym_array_init, 7950), (sym_array_index_elem, 7950),
     (sym_struct_init, 7950), (sym_struct_elem, 7950), (sym_direct_variable, 2060),
     (sym_ref_value, 2089), (sym_ref_addr, 2096), (sym_deref_expression, 2016),
     (sym_variable, 2054), (sym_var_access, 2016), (sym__expression, 3316),
     (sym_fold_expression, 2088), (sym_pack_element, 2088), (sym__primary_expression, 2088),
     (sym_parenthesized_expression, 2089), (sym_boolean_operator, 2088), (sym_or_operator, 2093),
     (sym_xor_operator, 2093), (sym_and_operator, 2093), (sym_comparison_operator, 2088),
     (sym_eq_operator, 2102), (sym_ord_operator, 2102), (sym_add_operator, 2088),
     (sym_mult_operator, 2088), (sym_power_operator, 2088), (sym_unary_operator, 2088),
     (sym_unary, 61), (sym_constant_expr, 7950), (sym_variable_access, 2089), (sym_func_call, 3354),
     (sym_begin_path_expression, 2049), (sym_invocation, 2044), (sym_any_invocation, 2043),
     (sym_this_invocation, 2019), (sym_super_invocation, 2019), (sym_super_body_invocation, 2043),
     (sym_path_expression, 2002), (sym_field_expression, 2016), (sym_index_expression, 2016),
     (sym_identifier, 147), (aux_sym_ERR_unexpected_this_in_path_token1, 37),
     (aux_sym_ERR_unexpected_super_in_path_token1, 39), (sym_line_comment, 3),
     (anon_sym_LPAREN, 149), (anon_sym_RPAREN, 161), (sym_unsigned_int, 151),
     (sym__explicit_signed_int, 47), (sym_binary_int, 49), (sym_octal_int, 49), (sym_hex_int, 51),
     (sym__explicit_signed_real, 53), (sym_real_value, 53),
     (aux_sym_bool_literal_with_string_token1, 55), (aux_sym_bool_literal_with_string_token2, 57),
     (aux_sym_bool_literal_with_string_token3, 57), (sym_s_byte_char_str, 59),
     (sym_d_byte_char_str, 59), (aux_sym_time_token1, 61), (anon_sym_PLUS, 63), (anon_sym_DASH, 63),
     (aux_sym_ltime_token1, 65), (aux_sym_tod_token1, 67), (aux_sym_ltod_token1, 69),
     (aux_sym_short_date_token1, 71), (aux_sym_long_date_token1, 73),
     (aux_sym_short_date_and_time_token1, 75), (aux_sym_long_date_and_time_token1, 77),
     (aux_sym_sign_int_type_name_token1, 79), (aux_sym_sign_int_type_name_token2, 79),
     (aux_sym_sign_int_type_name_token3, 79), (aux_sym_sign_int_type_name_token4, 79),
     (aux_sym_unsign_int_type_name_token1, 81), (aux_sym_unsign_int_type_name_token2, 81),
     (aux_sym_unsign_int_type_name_token3, 81), (aux_sym_unsign_int_type_name_token4, 81),
     (aux_sym_real_type_name_token1, 83), (aux_sym_real_type_name_token2, 83),
     (aux_sym_string_name_token1, 85), (anon_sym_LBRACK, 159), (aux_sym_char_name_token1, 87),
     (aux_sym_multibits_type_name_token1, 89), (aux_sym_multibits_type_name_token2, 89),
     (aux_sym_multibits_type_name_token3, 89), (aux_sym_multibits_type_name_token4, 89),
     (anon_sym_PERCENT, 91), (aux_sym_ref_value_token1, 93), (aux_sym_ref_addr_token1, 95),
     (anon_sym_DOT_DOT_DOT, 97), (aux_sym_unary_token1, 63), (sym_c_style_comment, 3),
     (sym_pascal_style_comment, 3), (sym_pragma, 3), (sym__minus_before_base, 99),
     (sym__plus_before_base, 99)]"

lemma ts_parse_row_9_scan: "row_scan tokens_4_1 0 ts_parse_row_9 = Some (Suc (Suc (Suc (Suc (Suc (Suc 0))))))"
  unfolding ts_parse_row_9_def by simp

text \<open>Lines 54151 to 54283.\<close>

definition ts_parse_row_10 :: parse_row where
  "ts_parse_row_10 =
    [(sym_ERR_unexpected_this_in_path, 2018), (sym_ERR_unexpected_super_in_path, 2018),
     (sym_constant, 2089), (sym_numeric_literal, 2090), (sym_int_literal, 2092),
     (sym_int_kind, 9320), (sym_signed_int, 2111), (sym_real_literal, 2092),
     (sym_signed_real_value, 2105), (sym_bool_literal, 2090), (sym_bool_literal_with_string, 2114),
     (sym_bool_literal_with_numeric, 2114), (sym_char_literal, 2090), (sym_char_str, 2120),
     (sym_time_literal, 2090), (sym_duration, 2123), (sym_time, 2087), (sym_ltime, 2087),
     (sym_time_of_day, 2123), (sym_tod, 2091), (sym_ltod, 2091), (sym_date, 2123),
     (sym_short_date, 2066), (sym_long_date, 2066), (sym_date_and_time, 2123),
     (sym_short_date_and_time, 2067), (sym_long_date_and_time, 2067), (sym_int_type_name, 9449),
     (sym_sign_int_type_name, 2352), (sym_unsign_int_type_name, 2352), (sym_real_type_name, 9455),
     (sym_string_type_name, 9457), (sym_string_name, 2353), (sym_char_name, 2353),
     (sym_multibits_type_name, 9449), (sym_subrange, 8133), (sym_enum_value, 2089),
     (sym_direct_variable, 2060), (sym_ref_value, 2089), (sym_ref_addr, 2096),
     (sym_deref_expression, 2016), (sym_variable, 2054), (sym_var_access, 2016),
     (sym__expression, 3268), (sym_fold_expression, 2088), (sym_pack_element, 2088),
     (sym__primary_expression, 2088), (sym_parenthesized_expression, 2089),
     (sym_boolean_operator, 2088), (sym_or_operator, 2093), (sym_xor_operator, 2093),
     (sym_and_operator, 2093), (sym_comparison_operator, 2088), (sym_eq_operator, 2102),
     (sym_ord_operator, 2102), (sym_add_operator, 2088), (sym_mult_operator, 2088),
     (sym_power_operator, 2088), (sym_unary_operator, 2088), (sym_unary, 61),
     (sym_constant_expr, 8040), (sym_variable_access, 2089), (sym_func_call, 2089),
     (sym_case_selection, 16), (sym_case_list, 9502), (sym_case_list_elem, 8041),
     (sym_begin_path_expression, 2049), (sym_invocation, 2044), (sym_any_invocation, 2043),
     (sym_this_invocation, 2019), (sym_super_invocation, 2019), (sym_super_body_invocation, 2043),
     (sym_path_expression, 2002), (sym_field_expression, 2016), (sym_index_expression, 2016),
     (aux_sym_case_stmt_repeat1, 16), (sym_identifier, 35),
     (aux_sym_ERR_unexpected_this_in_path_token1, 37),
     (aux_sym_ERR_unexpected_super_in_path_token1, 39), (sym_line_comment, 3),
     (anon_sym_LPAREN, 43), (sym_unsigned_int, 47), (sym__explicit_signed_int, 47),
     (sym_binary_int, 49), (sym_octal_int, 49), (sym_hex_int, 51), (sym__explicit_signed_real, 53),
     (sym_real_value, 53), (aux_sym_bool_literal_with_string_token1, 55),
     (aux_sym_bool_literal_with_string_token2, 57), (aux_sym_bool_literal_with_string_token3, 57),
     (sym_s_byte_char_str, 59), (sym_d_byte_char_str, 59), (aux_sym_time_token1, 61),
     (anon_sym_PLUS, 63), (anon_sym_DASH, 63), (aux_sym_ltime_token1, 65), (aux_sym_tod_token1, 67),
     (aux_sym_ltod_token1, 69), (aux_sym_short_date_token1, 71), (aux_sym_long_date_token1, 73),
     (aux_sym_short_date_and_time_token1, 75), (aux_sym_long_date_and_time_token1, 77),
     (aux_sym_sign_int_type_name_token1, 79), (aux_sym_sign_int_type_name_token2, 79),
     (aux_sym_sign_int_type_name_token3, 79), (aux_sym_sign_int_type_name_token4, 79),
     (aux_sym_unsign_int_type_name_token1, 81), (aux_sym_unsign_int_type_name_token2, 81),
     (aux_sym_unsign_int_type_name_token3, 81), (aux_sym_unsign_int_type_name_token4, 81),
     (aux_sym_real_type_name_token1, 83), (aux_sym_real_type_name_token2, 83),
     (aux_sym_string_name_token1, 85), (aux_sym_char_name_token1, 87),
     (aux_sym_multibits_type_name_token1, 89), (aux_sym_multibits_type_name_token2, 89),
     (aux_sym_multibits_type_name_token3, 89), (aux_sym_multibits_type_name_token4, 89),
     (anon_sym_PERCENT, 91), (aux_sym_ref_value_token1, 93), (aux_sym_ref_addr_token1, 95),
     (anon_sym_DOT_DOT_DOT, 97), (aux_sym_unary_token1, 63), (aux_sym_if_stmt_token3, 163),
     (aux_sym_case_stmt_token2, 165), (sym_c_style_comment, 3), (sym_pascal_style_comment, 3),
     (sym_pragma, 3), (sym__minus_before_base, 99), (sym__plus_before_base, 99)]"

lemma ts_parse_row_10_scan: "row_scan tokens_4_1 0 ts_parse_row_10 = Some (Suc (Suc (Suc (Suc (Suc (Suc 0))))))"
  unfolding ts_parse_row_10_def by simp

text \<open>Lines 54284 to 54416.\<close>

definition ts_parse_row_11 :: parse_row where
  "ts_parse_row_11 =
    [(sym_ERR_unexpected_this_in_path, 2018), (sym_ERR_unexpected_super_in_path, 2018),
     (sym_constant, 2089), (sym_numeric_literal, 2090), (sym_int_literal, 2092),
     (sym_int_kind, 9320), (sym_signed_int, 2111), (sym_real_literal, 2092),
     (sym_signed_real_value, 2105), (sym_bool_literal, 2090), (sym_bool_literal_with_string, 2114),
     (sym_bool_literal_with_numeric, 2114), (sym_char_literal, 2090), (sym_char_str, 2120),
     (sym_time_literal, 2090), (sym_duration, 2123), (sym_time, 2087), (sym_ltime, 2087),
     (sym_time_of_day, 2123), (sym_tod, 2091), (sym_ltod, 2091), (sym_date, 2123),
     (sym_short_date, 2066), (sym_long_date, 2066), (sym_date_and_time, 2123),
     (sym_short_date_and_time, 2067), (sym_long_date_and_time, 2067), (sym_int_type_name, 9449),
     (sym_sign_int_type_name, 2352), (sym_unsign_int_type_name, 2352), (sym_real_type_name, 9455),
     (sym_string_type_name, 9457), (sym_string_name, 2353), (sym_char_name, 2353),
     (sym_multibits_type_name, 9449), (sym_subrange, 8133), (sym_enum_value, 2089),
     (sym_direct_variable, 2060), (sym_ref_value, 2089), (sym_ref_addr, 2096),
     (sym_deref_expression, 2016), (sym_variable, 2054), (sym_var_access, 2016),
     (sym__expression, 3268), (sym_fold_expression, 2088), (sym_pack_element, 2088),
     (sym__primary_expression, 2088), (sym_parenthesized_expression, 2089),
     (sym_boolean_operator, 2088), (sym_or_operator, 2093), (sym_xor_operator, 2093),
     (sym_and_operator, 2093), (sym_comparison_operator, 2088), (sym_eq_operator, 2102),
     (sym_ord_operator, 2102), (sym_add_operator, 2088), (sym_mult_operator, 2088),
     (sym_power_operator, 2088), (sym_unary_operator, 2088), (sym_unary, 61),
     (sym_constant_expr, 8040), (sym_variable_access, 2089), (sym_func_call, 2089),
     (sym_case_selection, 10), (sym_case_list, 9502), (sym_case_list_elem, 8041),
     (sym_begin_path_expression, 2049), (sym_invocation, 2044), (sym_any_invocation, 2043),
     (sym_this_invocation, 2019), (sym_super_invocation, 2019), (sym_super_body_invocation, 2043),
     (sym_path_expression, 2002), (sym_field_expression, 2016), (sym_index_expression, 2016),
     (aux_sym_case_stmt_repeat1, 10), (sym_identifier, 35),
     (aux_sym_ERR_unexpected_this_in_path_token1, 37),
     (aux_sym_ERR_unexpected_super_in_path_token1, 39), (sym_line_comment, 3),
     (anon_sym_LPAREN, 43), (sym_unsigned_int, 47), (sym__explicit_signed_int, 47),
     (sym_binary_int, 49), (sym_octal_int, 49), (sym_hex_int, 51), (sym__explicit_signed_real, 53),
     (sym_real_value, 53), (aux_sym_bool_literal_with_string_token1, 55),
     (aux_sym_bool_literal_with_string_token2, 57), (aux_sym_bool_literal_with_string_token3, 57),
     (sym_s_byte_char_str, 59), (sym_d_byte_char_str, 59), (aux_sym_time_token1, 61),
     (anon_sym_PLUS, 63), (anon_sym_DASH, 63), (aux_sym_ltime_token1, 65), (aux_sym_tod_token1, 67),
     (aux_sym_ltod_token1, 69), (aux_sym_short_date_token1, 71), (aux_sym_long_date_token1, 73),
     (aux_sym_short_date_and_time_token1, 75), (aux_sym_long_date_and_time_token1, 77),
     (aux_sym_sign_int_type_name_token1, 79), (aux_sym_sign_int_type_name_token2, 79),
     (aux_sym_sign_int_type_name_token3, 79), (aux_sym_sign_int_type_name_token4, 79),
     (aux_sym_unsign_int_type_name_token1, 81), (aux_sym_unsign_int_type_name_token2, 81),
     (aux_sym_unsign_int_type_name_token3, 81), (aux_sym_unsign_int_type_name_token4, 81),
     (aux_sym_real_type_name_token1, 83), (aux_sym_real_type_name_token2, 83),
     (aux_sym_string_name_token1, 85), (aux_sym_char_name_token1, 87),
     (aux_sym_multibits_type_name_token1, 89), (aux_sym_multibits_type_name_token2, 89),
     (aux_sym_multibits_type_name_token3, 89), (aux_sym_multibits_type_name_token4, 89),
     (anon_sym_PERCENT, 91), (aux_sym_ref_value_token1, 93), (aux_sym_ref_addr_token1, 95),
     (anon_sym_DOT_DOT_DOT, 97), (aux_sym_unary_token1, 63), (aux_sym_if_stmt_token3, 167),
     (aux_sym_case_stmt_token2, 169), (sym_c_style_comment, 3), (sym_pascal_style_comment, 3),
     (sym_pragma, 3), (sym__minus_before_base, 99), (sym__plus_before_base, 99)]"

lemma ts_parse_row_11_scan: "row_scan tokens_4_1 0 ts_parse_row_11 = Some (Suc (Suc (Suc (Suc (Suc (Suc 0))))))"
  unfolding ts_parse_row_11_def by simp

text \<open>Lines 54417 to 54549.\<close>

definition ts_parse_row_12 :: parse_row where
  "ts_parse_row_12 =
    [(sym_ERR_unexpected_this_in_path, 2018), (sym_ERR_unexpected_super_in_path, 2018),
     (sym_constant, 2089), (sym_numeric_literal, 2090), (sym_int_literal, 2092),
     (sym_int_kind, 9320), (sym_signed_int, 2111), (sym_real_literal, 2092),
     (sym_signed_real_value, 2105), (sym_bool_literal, 2090), (sym_bool_literal_with_string, 2114),
     (sym_bool_literal_with_numeric, 2114), (sym_char_literal, 2090), (sym_char_str, 2120),
     (sym_time_literal, 2090), (sym_duration, 2123), (sym_time, 2087), (sym_ltime, 2087),
     (sym_time_of_day, 2123), (sym_tod, 2091), (sym_ltod, 2091), (sym_date, 2123),
     (sym_short_date, 2066), (sym_long_date, 2066), (sym_date_and_time, 2123),
     (sym_short_date_and_time, 2067), (sym_long_date_and_time, 2067), (sym_int_type_name, 9449),
     (sym_sign_int_type_name, 2352), (sym_unsign_int_type_name, 2352), (sym_real_type_name, 9455),
     (sym_string_type_name, 9457), (sym_string_name, 2353), (sym_char_name, 2353),
     (sym_multibits_type_name, 9449), (sym_subrange, 8133), (sym_enum_value, 2089),
     (sym_direct_variable, 2060), (sym_ref_value, 2089), (sym_ref_addr, 2096),
     (sym_deref_expression, 2016), (sym_variable, 2054), (sym_var_access, 2016),
     (sym__expression, 3268), (sym_fold_expression, 2088), (sym_pack_element, 2088),
     (sym__primary_expression, 2088), (sym_parenthesized_expression, 2089),
     (sym_boolean_operator, 2088), (sym_or_operator, 2093), (sym_xor_operator, 2093),
     (sym_and_operator, 2093), (sym_comparison_operator, 2088), (sym_eq_operator, 2102),
     (sym_ord_operator, 2102), (sym_add_operator, 2088), (sym_mult_operator, 2088),
     (sym_power_operator, 2088), (sym_unary_operator, 2088), (sym_unary, 61),
     (sym_constant_expr, 8040), (sym_variable_access, 2089), (sym_func_call, 2089),
     (sym_case_selection, 16), (sym_case_list, 9502), (sym_case_list_elem, 8041),
     (sym_begin_path_expression, 2049), (sym_invocation, 2044), (sym_any_invocation, 2043),
     (sym_this_invocation, 2019), (sym_super_invocation, 2019), (sym_super_body_invocation, 2043),
     (sym_path_expression, 2002), (sym_field_expression, 2016), (sym_index_expression, 2016),
     (aux_sym_case_stmt_repeat1, 16), (sym_identifier, 35),
     (aux_sym_ERR_unexpected_this_in_path_token1, 37),
     (aux_sym_ERR_unexpected_super_in_path_token1, 39), (sym_line_comment, 3),
     (anon_sym_LPAREN, 43), (sym_unsigned_int, 47), (sym__explicit_signed_int, 47),
     (sym_binary_int, 49), (sym_octal_int, 49), (sym_hex_int, 51), (sym__explicit_signed_real, 53),
     (sym_real_value, 53), (aux_sym_bool_literal_with_string_token1, 55),
     (aux_sym_bool_literal_with_string_token2, 57), (aux_sym_bool_literal_with_string_token3, 57),
     (sym_s_byte_char_str, 59), (sym_d_byte_char_str, 59), (aux_sym_time_token1, 61),
     (anon_sym_PLUS, 63), (anon_sym_DASH, 63), (aux_sym_ltime_token1, 65), (aux_sym_tod_token1, 67),
     (aux_sym_ltod_token1, 69), (aux_sym_short_date_token1, 71), (aux_sym_long_date_token1, 73),
     (aux_sym_short_date_and_time_token1, 75), (aux_sym_long_date_and_time_token1, 77),
     (aux_sym_sign_int_type_name_token1, 79), (aux_sym_sign_int_type_name_token2, 79),
     (aux_sym_sign_int_type_name_token3, 79), (aux_sym_sign_int_type_name_token4, 79),
     (aux_sym_unsign_int_type_name_token1, 81), (aux_sym_unsign_int_type_name_token2, 81),
     (aux_sym_unsign_int_type_name_token3, 81), (aux_sym_unsign_int_type_name_token4, 81),
     (aux_sym_real_type_name_token1, 83), (aux_sym_real_type_name_token2, 83),
     (aux_sym_string_name_token1, 85), (aux_sym_char_name_token1, 87),
     (aux_sym_multibits_type_name_token1, 89), (aux_sym_multibits_type_name_token2, 89),
     (aux_sym_multibits_type_name_token3, 89), (aux_sym_multibits_type_name_token4, 89),
     (anon_sym_PERCENT, 91), (aux_sym_ref_value_token1, 93), (aux_sym_ref_addr_token1, 95),
     (anon_sym_DOT_DOT_DOT, 97), (aux_sym_unary_token1, 63), (aux_sym_if_stmt_token3, 171),
     (aux_sym_case_stmt_token2, 173), (sym_c_style_comment, 3), (sym_pascal_style_comment, 3),
     (sym_pragma, 3), (sym__minus_before_base, 99), (sym__plus_before_base, 99)]"

lemma ts_parse_row_12_scan: "row_scan tokens_4_1 0 ts_parse_row_12 = Some (Suc (Suc (Suc (Suc (Suc (Suc 0))))))"
  unfolding ts_parse_row_12_def by simp

text \<open>Lines 54550 to 54682.\<close>

definition ts_parse_row_13 :: parse_row where
  "ts_parse_row_13 =
    [(sym_ERR_unexpected_this_in_path, 2018), (sym_ERR_unexpected_super_in_path, 2018),
     (sym_ERR_func_call_in_init, 7950), (sym_constant, 2089), (sym_numeric_literal, 2090),
     (sym_int_literal, 2092), (sym_int_kind, 9320), (sym_signed_int, 2111),
     (sym_real_literal, 2092), (sym_signed_real_value, 2105), (sym_bool_literal, 2090),
     (sym_bool_literal_with_string, 2114), (sym_bool_literal_with_numeric, 2114),
     (sym_char_literal, 2090), (sym_char_str, 2120), (sym_time_literal, 2090), (sym_duration, 2123),
     (sym_time, 2087), (sym_ltime, 2087), (sym_time_of_day, 2123), (sym_tod, 2091),
     (sym_ltod, 2091), (sym_date, 2123), (sym_short_date, 2066), (sym_long_date, 2066),
     (sym_date_and_time, 2123), (sym_short_date_and_time, 2067), (sym_long_date_and_time, 2067),
     (sym_int_type_name, 9449), (sym_sign_int_type_name, 2352), (sym_unsign_int_type_name, 2352),
     (sym_real_type_name, 9455), (sym_string_type_name, 9457), (sym_string_name, 2353),
     (sym_char_name, 2353), (sym_multibits_type_name, 9449), (sym_enum_value, 2089),
     (sym_init_elem, 8098), (sym_array_init, 7950), (sym_array_index_elem, 7950),
     (sym_struct_init, 7950), (sym_struct_elem, 7950), (sym_direct_variable, 2060),
     (sym_ref_value, 2089), (sym_ref_addr, 2096), (sym_deref_expression, 2016),
     (sym_variable, 2054), (sym_var_access, 2016), (sym__expression, 3268),
     (sym_fold_expression, 2088), (sym_pack_element, 2088), (sym__primary_expression, 2088),
     (sym_parenthesized_expression, 2089), (sym_boolean_operator, 2088), (sym_or_operator, 2093),
     (sym_xor_operator, 2093), (sym_and_operator, 2093), (sym_comparison_operator, 2088),
     (sym_eq_operator, 2102), (sym_ord_operator, 2102), (sym_add_operator, 2088),
     (sym_mult_operator, 2088), (sym_power_operator, 2088), (sym_unary_operator, 2088),
     (sym_unary, 61), (sym_constant_expr, 7950), (sym_variable_access, 2089), (sym_func_call, 3354),
     (sym_begin_path_expression, 2049), (sym_invocation, 2044), (sym_any_invocation, 2043),
     (sym_this_invocation, 2019), (sym_super_invocation, 2019), (sym_super_body_invocation, 2043),
     (sym_path_expression, 2002), (sym_field_expression, 2016), (sym_index_expression, 2016),
     (sym_identifier, 147), (aux_sym_ERR_unexpected_this_in_path_token1, 37),
     (aux_sym_ERR_unexpected_super_in_path_token1, 39), (sym_line_comment, 3),
     (anon_sym_LPAREN, 149), (sym_unsigned_int, 151), (sym__explicit_signed_int, 47),
     (sym_binary_int, 49), (sym_octal_int, 49), (sym_hex_int, 51), (sym__explicit_signed_real, 53),
     (sym_real_value, 53), (aux_sym_bool_literal_with_string_token1, 55),
     (aux_sym_bool_literal_with_string_token2, 57), (aux_sym_bool_literal_with_string_token3, 57),
     (sym_s_byte_char_str, 59), (sym_d_byte_char_str, 59), (aux_sym_time_token1, 61),
     (anon_sym_PLUS, 63), (anon_sym_DASH, 63), (aux_sym_ltime_token1, 65), (aux_sym_tod_token1, 67),
     (aux_sym_ltod_token1, 69), (aux_sym_short_date_token1, 71), (aux_sym_long_date_token1, 73),
     (aux_sym_short_date_and_time_token1, 75), (aux_sym_long_date_and_time_token1, 77),
     (aux_sym_sign_int_type_name_token1, 79), (aux_sym_sign_int_type_name_token2, 79),
     (aux_sym_sign_int_type_name_token3, 79), (aux_sym_sign_int_type_name_token4, 79),
     (aux_sym_unsign_int_type_name_token1, 81), (aux_sym_unsign_int_type_name_token2, 81),
     (aux_sym_unsign_int_type_name_token3, 81), (aux_sym_unsign_int_type_name_token4, 81),
     (aux_sym_real_type_name_token1, 83), (aux_sym_real_type_name_token2, 83),
     (aux_sym_string_name_token1, 85), (anon_sym_LBRACK, 159), (aux_sym_char_name_token1, 87),
     (aux_sym_multibits_type_name_token1, 89), (aux_sym_multibits_type_name_token2, 89),
     (aux_sym_multibits_type_name_token3, 89), (aux_sym_multibits_type_name_token4, 89),
     (anon_sym_PERCENT, 91), (aux_sym_ref_value_token1, 93), (aux_sym_ref_addr_token1, 95),
     (anon_sym_DOT_DOT_DOT, 97), (aux_sym_unary_token1, 63), (sym_c_style_comment, 3),
     (sym_pascal_style_comment, 3), (sym_pragma, 3), (sym__minus_before_base, 99),
     (sym__plus_before_base, 99)]"

lemma ts_parse_row_13_scan: "row_scan tokens_4_1 0 ts_parse_row_13 = Some (Suc (Suc (Suc (Suc (Suc (Suc 0))))))"
  unfolding ts_parse_row_13_def by simp

text \<open>Lines 54683 to 54815.\<close>

definition ts_parse_row_14 :: parse_row where
  "ts_parse_row_14 =
    [(sym_ERR_unexpected_this_in_path, 2018), (sym_ERR_unexpected_super_in_path, 2018),
     (sym_constant, 2089), (sym_numeric_literal, 2090), (sym_int_literal, 2092),
     (sym_int_kind, 9320), (sym_signed_int, 2111), (sym_real_literal, 2092),
     (sym_signed_real_value, 2105), (sym_bool_literal, 2090), (sym_bool_literal_with_string, 2114),
     (sym_bool_literal_with_numeric, 2114), (sym_char_literal, 2090), (sym_char_str, 2120),
     (sym_time_literal, 2090), (sym_duration, 2123), (sym_time, 2087), (sym_ltime, 2087),
     (sym_time_of_day, 2123), (sym_tod, 2091), (sym_ltod, 2091), (sym_date, 2123),
     (sym_short_date, 2066), (sym_long_date, 2066), (sym_date_and_time, 2123),
     (sym_short_date_and_time, 2067), (sym_long_date_and_time, 2067), (sym_int_type_name, 9449),
     (sym_sign_int_type_name, 2352), (sym_unsign_int_type_name, 2352), (sym_real_type_name, 9455),
     (sym_string_type_name, 9457), (sym_string_name, 2353), (sym_char_name, 2353),
     (sym_multibits_type_name, 9449), (sym_subrange, 8133), (sym_enum_value, 2089),
     (sym_direct_variable, 2060), (sym_ref_value, 2089), (sym_ref_addr, 2096),
     (sym_deref_expression, 2016), (sym_variable, 2054), (sym_var_access, 2016),
     (sym__expression, 3268), (sym_fold_expression, 2088), (sym_pack_element, 2088),
     (sym__primary_expression, 2088), (sym_parenthesized_expression, 2089),
     (sym_boolean_operator, 2088), (sym_or_operator, 2093), (sym_xor_operator, 2093),
     (sym_and_operator, 2093), (sym_comparison_operator, 2088), (sym_eq_operator, 2102),
     (sym_ord_operator, 2102), (sym_add_operator, 2088), (sym_mult_operator, 2088),
     (sym_power_operator, 2088), (sym_unary_operator, 2088), (sym_unary, 61),
     (sym_constant_expr, 8040), (sym_variable_access, 2089), (sym_func_call, 2089),
     (sym_case_selection, 12), (sym_case_list, 9502), (sym_case_list_elem, 8041),
     (sym_begin_path_expression, 2049), (sym_invocation, 2044), (sym_any_invocation, 2043),
     (sym_this_invocation, 2019), (sym_super_invocation, 2019), (sym_super_body_invocation, 2043),
     (sym_path_expression, 2002), (sym_field_expression, 2016), (sym_index_expression, 2016),
     (aux_sym_case_stmt_repeat1, 12), (sym_identifier, 35),
     (aux_sym_ERR_unexpected_this_in_path_token1, 37),
     (aux_sym_ERR_unexpected_super_in_path_token1, 39), (sym_line_comment, 3),
     (anon_sym_LPAREN, 43), (sym_unsigned_int, 47), (sym__explicit_signed_int, 47),
     (sym_binary_int, 49), (sym_octal_int, 49), (sym_hex_int, 51), (sym__explicit_signed_real, 53),
     (sym_real_value, 53), (aux_sym_bool_literal_with_string_token1, 55),
     (aux_sym_bool_literal_with_string_token2, 57), (aux_sym_bool_literal_with_string_token3, 57),
     (sym_s_byte_char_str, 59), (sym_d_byte_char_str, 59), (aux_sym_time_token1, 61),
     (anon_sym_PLUS, 63), (anon_sym_DASH, 63), (aux_sym_ltime_token1, 65), (aux_sym_tod_token1, 67),
     (aux_sym_ltod_token1, 69), (aux_sym_short_date_token1, 71), (aux_sym_long_date_token1, 73),
     (aux_sym_short_date_and_time_token1, 75), (aux_sym_long_date_and_time_token1, 77),
     (aux_sym_sign_int_type_name_token1, 79), (aux_sym_sign_int_type_name_token2, 79),
     (aux_sym_sign_int_type_name_token3, 79), (aux_sym_sign_int_type_name_token4, 79),
     (aux_sym_unsign_int_type_name_token1, 81), (aux_sym_unsign_int_type_name_token2, 81),
     (aux_sym_unsign_int_type_name_token3, 81), (aux_sym_unsign_int_type_name_token4, 81),
     (aux_sym_real_type_name_token1, 83), (aux_sym_real_type_name_token2, 83),
     (aux_sym_string_name_token1, 85), (aux_sym_char_name_token1, 87),
     (aux_sym_multibits_type_name_token1, 89), (aux_sym_multibits_type_name_token2, 89),
     (aux_sym_multibits_type_name_token3, 89), (aux_sym_multibits_type_name_token4, 89),
     (anon_sym_PERCENT, 91), (aux_sym_ref_value_token1, 93), (aux_sym_ref_addr_token1, 95),
     (anon_sym_DOT_DOT_DOT, 97), (aux_sym_unary_token1, 63), (aux_sym_if_stmt_token3, 175),
     (aux_sym_case_stmt_token2, 177), (sym_c_style_comment, 3), (sym_pascal_style_comment, 3),
     (sym_pragma, 3), (sym__minus_before_base, 99), (sym__plus_before_base, 99)]"

lemma ts_parse_row_14_scan: "row_scan tokens_4_1 0 ts_parse_row_14 = Some (Suc (Suc (Suc (Suc (Suc (Suc 0))))))"
  unfolding ts_parse_row_14_def by simp

text \<open>Lines 54816 to 54948.\<close>

definition ts_parse_row_15 :: parse_row where
  "ts_parse_row_15 =
    [(sym_ERR_unexpected_this_in_path, 2018), (sym_ERR_unexpected_super_in_path, 2018),
     (sym_ERR_func_call_in_init, 7950), (sym_constant, 2089), (sym_numeric_literal, 2090),
     (sym_int_literal, 2092), (sym_int_kind, 9320), (sym_signed_int, 2111),
     (sym_real_literal, 2092), (sym_signed_real_value, 2105), (sym_bool_literal, 2090),
     (sym_bool_literal_with_string, 2114), (sym_bool_literal_with_numeric, 2114),
     (sym_char_literal, 2090), (sym_char_str, 2120), (sym_time_literal, 2090), (sym_duration, 2123),
     (sym_time, 2087), (sym_ltime, 2087), (sym_time_of_day, 2123), (sym_tod, 2091),
     (sym_ltod, 2091), (sym_date, 2123), (sym_short_date, 2066), (sym_long_date, 2066),
     (sym_date_and_time, 2123), (sym_short_date_and_time, 2067), (sym_long_date_and_time, 2067),
     (sym_int_type_name, 9449), (sym_sign_int_type_name, 2352), (sym_unsign_int_type_name, 2352),
     (sym_real_type_name, 9455), (sym_string_type_name, 9457), (sym_string_name, 2353),
     (sym_char_name, 2353), (sym_multibits_type_name, 9449), (sym_enum_value, 2089),
     (sym_init_elem, 7984), (sym_array_init, 7950), (sym_array_index_elem, 7950),
     (sym_struct_init, 7950), (sym_struct_elem, 7950), (sym_direct_variable, 2060),
     (sym_ref_value, 2089), (sym_ref_addr, 2096), (sym_deref_expression, 2016),
     (sym_variable, 2054), (sym_var_access, 2016), (sym__expression, 3268),
     (sym_fold_expression, 2088), (sym_pack_element, 2088), (sym__primary_expression, 2088),
     (sym_parenthesized_expression, 2089), (sym_boolean_operator, 2088), (sym_or_operator, 2093),
     (sym_xor_operator, 2093), (sym_and_operator, 2093), (sym_comparison_operator, 2088),
     (sym_eq_operator, 2102), (sym_ord_operator, 2102), (sym_add_operator, 2088),
     (sym_mult_operator, 2088), (sym_power_operator, 2088), (sym_unary_operator, 2088),
     (sym_unary, 61), (sym_constant_expr, 7950), (sym_variable_access, 2089), (sym_func_call, 3354),
     (sym_begin_path_expression, 2049), (sym_invocation, 2044), (sym_any_invocation, 2043),
     (sym_this_invocation, 2019), (sym_super_invocation, 2019), (sym_super_body_invocation, 2043),
     (sym_path_expression, 2002), (sym_field_expression, 2016), (sym_index_expression, 2016),
     (sym_identifier, 147), (aux_sym_ERR_unexpected_this_in_path_token1, 37),
     (aux_sym_ERR_unexpected_super_in_path_token1, 39), (sym_line_comment, 3),
     (anon_sym_LPAREN, 149), (sym_unsigned_int, 151), (sym__explicit_signed_int, 47),
     (sym_binary_int, 49), (sym_octal_int, 49), (sym_hex_int, 51), (sym__explicit_signed_real, 53),
     (sym_real_value, 53), (aux_sym_bool_literal_with_string_token1, 55),
     (aux_sym_bool_literal_with_string_token2, 57), (aux_sym_bool_literal_with_string_token3, 57),
     (sym_s_byte_char_str, 59), (sym_d_byte_char_str, 59), (aux_sym_time_token1, 61),
     (anon_sym_PLUS, 63), (anon_sym_DASH, 63), (aux_sym_ltime_token1, 65), (aux_sym_tod_token1, 67),
     (aux_sym_ltod_token1, 69), (aux_sym_short_date_token1, 71), (aux_sym_long_date_token1, 73),
     (aux_sym_short_date_and_time_token1, 75), (aux_sym_long_date_and_time_token1, 77),
     (aux_sym_sign_int_type_name_token1, 79), (aux_sym_sign_int_type_name_token2, 79),
     (aux_sym_sign_int_type_name_token3, 79), (aux_sym_sign_int_type_name_token4, 79),
     (aux_sym_unsign_int_type_name_token1, 81), (aux_sym_unsign_int_type_name_token2, 81),
     (aux_sym_unsign_int_type_name_token3, 81), (aux_sym_unsign_int_type_name_token4, 81),
     (aux_sym_real_type_name_token1, 83), (aux_sym_real_type_name_token2, 83),
     (aux_sym_string_name_token1, 85), (anon_sym_LBRACK, 159), (aux_sym_char_name_token1, 87),
     (aux_sym_multibits_type_name_token1, 89), (aux_sym_multibits_type_name_token2, 89),
     (aux_sym_multibits_type_name_token3, 89), (aux_sym_multibits_type_name_token4, 89),
     (anon_sym_PERCENT, 91), (aux_sym_ref_value_token1, 93), (aux_sym_ref_addr_token1, 95),
     (anon_sym_DOT_DOT_DOT, 97), (aux_sym_unary_token1, 63), (sym_c_style_comment, 3),
     (sym_pascal_style_comment, 3), (sym_pragma, 3), (sym__minus_before_base, 99),
     (sym__plus_before_base, 99)]"

lemma ts_parse_row_15_scan: "row_scan tokens_4_1 0 ts_parse_row_15 = Some (Suc (Suc (Suc (Suc (Suc (Suc 0))))))"
  unfolding ts_parse_row_15_def by simp

text \<open>Lines 54949 to 55081.\<close>

definition ts_parse_row_16 :: parse_row where
  "ts_parse_row_16 =
    [(sym_ERR_unexpected_this_in_path, 2018), (sym_ERR_unexpected_super_in_path, 2018),
     (sym_constant, 2089), (sym_numeric_literal, 2090), (sym_int_literal, 2092),
     (sym_int_kind, 9320), (sym_signed_int, 2111), (sym_real_literal, 2092),
     (sym_signed_real_value, 2105), (sym_bool_literal, 2090), (sym_bool_literal_with_string, 2114),
     (sym_bool_literal_with_numeric, 2114), (sym_char_literal, 2090), (sym_char_str, 2120),
     (sym_time_literal, 2090), (sym_duration, 2123), (sym_time, 2087), (sym_ltime, 2087),
     (sym_time_of_day, 2123), (sym_tod, 2091), (sym_ltod, 2091), (sym_date, 2123),
     (sym_short_date, 2066), (sym_long_date, 2066), (sym_date_and_time, 2123),
     (sym_short_date_and_time, 2067), (sym_long_date_and_time, 2067), (sym_int_type_name, 9449),
     (sym_sign_int_type_name, 2352), (sym_unsign_int_type_name, 2352), (sym_real_type_name, 9455),
     (sym_string_type_name, 9457), (sym_string_name, 2353), (sym_char_name, 2353),
     (sym_multibits_type_name, 9449), (sym_subrange, 8133), (sym_enum_value, 2089),
     (sym_direct_variable, 2060), (sym_ref_value, 2089), (sym_ref_addr, 2096),
     (sym_deref_expression, 2016), (sym_variable, 2054), (sym_var_access, 2016),
     (sym__expression, 3268), (sym_fold_expression, 2088), (sym_pack_element, 2088),
     (sym__primary_expression, 2088), (sym_parenthesized_expression, 2089),
     (sym_boolean_operator, 2088), (sym_or_operator, 2093), (sym_xor_operator, 2093),
     (sym_and_operator, 2093), (sym_comparison_operator, 2088), (sym_eq_operator, 2102),
     (sym_ord_operator, 2102), (sym_add_operator, 2088), (sym_mult_operator, 2088),
     (sym_power_operator, 2088), (sym_unary_operator, 2088), (sym_unary, 61),
     (sym_constant_expr, 8040), (sym_variable_access, 2089), (sym_func_call, 2089),
     (sym_case_selection, 16), (sym_case_list, 9502), (sym_case_list_elem, 8041),
     (sym_begin_path_expression, 2049), (sym_invocation, 2044), (sym_any_invocation, 2043),
     (sym_this_invocation, 2019), (sym_super_invocation, 2019), (sym_super_body_invocation, 2043),
     (sym_path_expression, 2002), (sym_field_expression, 2016), (sym_index_expression, 2016),
     (aux_sym_case_stmt_repeat1, 16), (sym_identifier, 179),
     (aux_sym_ERR_unexpected_this_in_path_token1, 182),
     (aux_sym_ERR_unexpected_super_in_path_token1, 185), (sym_line_comment, 3),
     (anon_sym_LPAREN, 188), (sym_unsigned_int, 191), (sym__explicit_signed_int, 191),
     (sym_binary_int, 194), (sym_octal_int, 194), (sym_hex_int, 197),
     (sym__explicit_signed_real, 200), (sym_real_value, 200),
     (aux_sym_bool_literal_with_string_token1, 203), (aux_sym_bool_literal_with_string_token2, 206),
     (aux_sym_bool_literal_with_string_token3, 206), (sym_s_byte_char_str, 209),
     (sym_d_byte_char_str, 209), (aux_sym_time_token1, 212), (anon_sym_PLUS, 215),
     (anon_sym_DASH, 215), (aux_sym_ltime_token1, 218), (aux_sym_tod_token1, 221),
     (aux_sym_ltod_token1, 224), (aux_sym_short_date_token1, 227), (aux_sym_long_date_token1, 230),
     (aux_sym_short_date_and_time_token1, 233), (aux_sym_long_date_and_time_token1, 236),
     (aux_sym_sign_int_type_name_token1, 239), (aux_sym_sign_int_type_name_token2, 239),
     (aux_sym_sign_int_type_name_token3, 239), (aux_sym_sign_int_type_name_token4, 239),
     (aux_sym_unsign_int_type_name_token1, 242), (aux_sym_unsign_int_type_name_token2, 242),
     (aux_sym_unsign_int_type_name_token3, 242), (aux_sym_unsign_int_type_name_token4, 242),
     (aux_sym_real_type_name_token1, 245), (aux_sym_real_type_name_token2, 245),
     (aux_sym_string_name_token1, 248), (aux_sym_char_name_token1, 251),
     (aux_sym_multibits_type_name_token1, 254), (aux_sym_multibits_type_name_token2, 254),
     (aux_sym_multibits_type_name_token3, 254), (aux_sym_multibits_type_name_token4, 254),
     (anon_sym_PERCENT, 257), (aux_sym_ref_value_token1, 260), (aux_sym_ref_addr_token1, 263),
     (anon_sym_DOT_DOT_DOT, 266), (aux_sym_unary_token1, 215), (aux_sym_if_stmt_token3, 269),
     (aux_sym_case_stmt_token2, 269), (sym_c_style_comment, 3), (sym_pascal_style_comment, 3),
     (sym_pragma, 3), (sym__minus_before_base, 271), (sym__plus_before_base, 271)]"

lemma ts_parse_row_16_scan: "row_scan tokens_4_1 0 ts_parse_row_16 = Some (Suc (Suc (Suc (Suc (Suc (Suc 0))))))"
  unfolding ts_parse_row_16_def by simp

text \<open>Lines 55082 to 55212.\<close>

definition ts_parse_row_17 :: parse_row where
  "ts_parse_row_17 =
    [(sym_ERR_unexpected_this_in_path, 2018), (sym_ERR_unexpected_super_in_path, 2018),
     (sym_ERR_func_call_in_init, 8130), (sym_constant, 2089), (sym_numeric_literal, 2090),
     (sym_int_literal, 2092), (sym_int_kind, 9320), (sym_signed_int, 2111),
     (sym_real_literal, 2092), (sym_signed_real_value, 2105), (sym_bool_literal, 2090),
     (sym_bool_literal_with_string, 2114), (sym_bool_literal_with_numeric, 2114),
     (sym_char_literal, 2090), (sym_char_str, 2120), (sym_time_literal, 2090), (sym_duration, 2123),
     (sym_time, 2087), (sym_ltime, 2087), (sym_time_of_day, 2123), (sym_tod, 2091),
     (sym_ltod, 2091), (sym_date, 2123), (sym_short_date, 2066), (sym_long_date, 2066),
     (sym_date_and_time, 2123), (sym_short_date_and_time, 2067), (sym_long_date_and_time, 2067),
     (sym_int_type_name, 9449), (sym_sign_int_type_name, 2352), (sym_unsign_int_type_name, 2352),
     (sym_real_type_name, 9455), (sym_string_type_name, 9457), (sym_string_name, 2353),
     (sym_char_name, 2353), (sym_multibits_type_name, 9449), (sym_enum_value, 2089),
     (sym_array_init, 8130), (sym__element_value, 8130), (sym_struct_init, 8130),
     (sym_direct_variable, 2060), (sym_ref_value, 2089), (sym_ref_addr, 2096),
     (sym_deref_expression, 2016), (sym_variable, 2054), (sym_var_access, 2016),
     (sym__expression, 3268), (sym_fold_expression, 2088), (sym_pack_element, 2088),
     (sym__primary_expression, 2088), (sym_parenthesized_expression, 2089),
     (sym_boolean_operator, 2088), (sym_or_operator, 2093), (sym_xor_operator, 2093),
     (sym_and_operator, 2093), (sym_comparison_operator, 2088), (sym_eq_operator, 2102),
     (sym_ord_operator, 2102), (sym_add_operator, 2088), (sym_mult_operator, 2088),
     (sym_power_operator, 2088), (sym_unary_operator, 2088), (sym_unary, 61),
     (sym_constant_expr, 8130), (sym_variable_access, 2089), (sym_func_call, 3354),
     (sym_begin_path_expression, 2049), (sym_invocation, 2044), (sym_any_invocation, 2043),
     (sym_this_invocation, 2019), (sym_super_invocation, 2019), (sym_super_body_invocation, 2043),
     (sym_path_expression, 2002), (sym_field_expression, 2016), (sym_index_expression, 2016),
     (sym_identifier, 35), (aux_sym_ERR_unexpected_this_in_path_token1, 37),
     (aux_sym_ERR_unexpected_super_in_path_token1, 39), (sym_line_comment, 3),
     (anon_sym_LPAREN, 149), (sym_unsigned_int, 47), (sym__explicit_signed_int, 47),
     (sym_binary_int, 49), (sym_octal_int, 49), (sym_hex_int, 51), (sym__explicit_signed_real, 53),
     (sym_real_value, 53), (aux_sym_bool_literal_with_string_token1, 55),
     (aux_sym_bool_literal_with_string_token2, 57), (aux_sym_bool_literal_with_string_token3, 57),
     (sym_s_byte_char_str, 59), (sym_d_byte_char_str, 59), (aux_sym_time_token1, 61),
     (anon_sym_PLUS, 63), (anon_sym_DASH, 63), (aux_sym_ltime_token1, 65), (aux_sym_tod_token1, 67),
     (aux_sym_ltod_token1, 69), (aux_sym_short_date_token1, 71), (aux_sym_long_date_token1, 73),
     (aux_sym_short_date_and_time_token1, 75), (aux_sym_long_date_and_time_token1, 77),
     (aux_sym_sign_int_type_name_token1, 79), (aux_sym_sign_int_type_name_token2, 79),
     (aux_sym_sign_int_type_name_token3, 79), (aux_sym_sign_int_type_name_token4, 79),
     (aux_sym_unsign_int_type_name_token1, 81), (aux_sym_unsign_int_type_name_token2, 81),
     (aux_sym_unsign_int_type_name_token3, 81), (aux_sym_unsign_int_type_name_token4, 81),
     (aux_sym_real_type_name_token1, 83), (aux_sym_real_type_name_token2, 83),
     (aux_sym_string_name_token1, 85), (anon_sym_LBRACK, 159), (aux_sym_char_name_token1, 87),
     (aux_sym_multibits_type_name_token1, 89), (aux_sym_multibits_type_name_token2, 89),
     (aux_sym_multibits_type_name_token3, 89), (aux_sym_multibits_type_name_token4, 89),
     (anon_sym_PERCENT, 91), (aux_sym_ref_value_token1, 93), (aux_sym_ref_addr_token1, 95),
     (anon_sym_DOT_DOT_DOT, 97), (aux_sym_unary_token1, 63), (sym_c_style_comment, 3),
     (sym_pascal_style_comment, 3), (sym_pragma, 3), (sym__minus_before_base, 99),
     (sym__plus_before_base, 99)]"

lemma ts_parse_row_17_scan: "row_scan tokens_4_1 0 ts_parse_row_17 = Some (Suc (Suc (Suc (Suc (Suc (Suc 0))))))"
  unfolding ts_parse_row_17_def by simp

text \<open>Lines 55213 to 55342.\<close>

definition ts_parse_row_18 :: parse_row where
  "ts_parse_row_18 =
    [(sym_ERR_unexpected_this_in_path, 2018), (sym_ERR_unexpected_super_in_path, 2018),
     (sym_constant, 2089), (sym_numeric_literal, 2090), (sym_int_literal, 2092),
     (sym_int_kind, 9320), (sym_signed_int, 2111), (sym_real_literal, 2092),
     (sym_signed_real_value, 2105), (sym_bool_literal, 2090), (sym_bool_literal_with_string, 2114),
     (sym_bool_literal_with_numeric, 2114), (sym_char_literal, 2090), (sym_char_str, 2120),
     (sym_time_literal, 2090), (sym_duration, 2123), (sym_time, 2087), (sym_ltime, 2087),
     (sym_time_of_day, 2123), (sym_tod, 2091), (sym_ltod, 2091), (sym_date, 2123),
     (sym_short_date, 2066), (sym_long_date, 2066), (sym_date_and_time, 2123),
     (sym_short_date_and_time, 2067), (sym_long_date_and_time, 2067), (sym_int_type_name, 9449),
     (sym_sign_int_type_name, 2352), (sym_unsign_int_type_name, 2352), (sym_real_type_name, 9455),
     (sym_string_type_name, 9457), (sym_string_name, 2353), (sym_char_name, 2353),
     (sym_multibits_type_name, 9449), (sym_subrange, 7973), (sym_enum_value, 2089),
     (sym_ranges, 8851), (sym_direct_variable, 2060), (sym_ref_value, 2089), (sym_ref_addr, 2096),
     (sym_deref_expression, 2016), (sym_variable, 2054), (sym_var_access, 2016),
     (sym_conformand_dimension, 7921), (sym__expression, 3268), (sym_fold_expression, 2088),
     (sym_pack_element, 2088), (sym__primary_expression, 2088),
     (sym_parenthesized_expression, 2089), (sym_boolean_operator, 2088), (sym_or_operator, 2093),
     (sym_xor_operator, 2093), (sym_and_operator, 2093), (sym_comparison_operator, 2088),
     (sym_eq_operator, 2102), (sym_ord_operator, 2102), (sym_add_operator, 2088),
     (sym_mult_operator, 2088), (sym_power_operator, 2088), (sym_unary_operator, 2088),
     (sym_unary, 61), (sym_constant_expr, 8857), (sym_variable_access, 2089), (sym_func_call, 2089),
     (sym_begin_path_expression, 2049), (sym_invocation, 2044), (sym_any_invocation, 2043),
     (sym_this_invocation, 2019), (sym_super_invocation, 2019), (sym_super_body_invocation, 2043),
     (sym_path_expression, 2002), (sym_field_expression, 2016), (sym_index_expression, 2016),
     (sym_identifier, 35), (aux_sym_ERR_unexpected_this_in_path_token1, 37),
     (aux_sym_ERR_unexpected_super_in_path_token1, 39), (sym_line_comment, 3),
     (anon_sym_LPAREN, 43), (sym_unsigned_int, 47), (sym__explicit_signed_int, 47),
     (sym_binary_int, 49), (sym_octal_int, 49), (sym_hex_int, 51), (sym__explicit_signed_real, 53),
     (sym_real_value, 53), (aux_sym_bool_literal_with_string_token1, 55),
     (aux_sym_bool_literal_with_string_token2, 57), (aux_sym_bool_literal_with_string_token3, 57),
     (sym_s_byte_char_str, 59), (sym_d_byte_char_str, 59), (aux_sym_time_token1, 61),
     (anon_sym_PLUS, 63), (anon_sym_DASH, 63), (aux_sym_ltime_token1, 65), (aux_sym_tod_token1, 67),
     (aux_sym_ltod_token1, 69), (aux_sym_short_date_token1, 71), (aux_sym_long_date_token1, 73),
     (aux_sym_short_date_and_time_token1, 75), (aux_sym_long_date_and_time_token1, 77),
     (aux_sym_sign_int_type_name_token1, 79), (aux_sym_sign_int_type_name_token2, 79),
     (aux_sym_sign_int_type_name_token3, 79), (aux_sym_sign_int_type_name_token4, 79),
     (aux_sym_unsign_int_type_name_token1, 81), (aux_sym_unsign_int_type_name_token2, 81),
     (aux_sym_unsign_int_type_name_token3, 81), (aux_sym_unsign_int_type_name_token4, 81),
     (aux_sym_real_type_name_token1, 83), (aux_sym_real_type_name_token2, 83),
     (aux_sym_string_name_token1, 85), (aux_sym_char_name_token1, 87),
     (aux_sym_multibits_type_name_token1, 89), (aux_sym_multibits_type_name_token2, 89),
     (aux_sym_multibits_type_name_token3, 89), (aux_sym_multibits_type_name_token4, 89),
     (anon_sym_PERCENT, 91), (anon_sym_STAR, 274), (aux_sym_ref_value_token1, 93),
     (aux_sym_ref_addr_token1, 95), (anon_sym_DOT_DOT_DOT, 97), (aux_sym_unary_token1, 63),
     (sym_c_style_comment, 3), (sym_pascal_style_comment, 3), (sym_pragma, 3),
     (sym__minus_before_base, 99), (sym__plus_before_base, 99)]"

lemma ts_parse_row_18_scan: "row_scan tokens_4_1 0 ts_parse_row_18 = Some (Suc (Suc (Suc (Suc (Suc (Suc 0))))))"
  unfolding ts_parse_row_18_def by simp

text \<open>Lines 55343 to 55471.\<close>

definition ts_parse_row_19 :: parse_row where
  "ts_parse_row_19 =
    [(sym_ERR_unexpected_this_in_path, 2018), (sym_ERR_unexpected_super_in_path, 2018),
     (sym_constant, 2089), (sym_numeric_literal, 2090), (sym_int_literal, 2092),
     (sym_int_kind, 9320), (sym_signed_int, 2111), (sym_real_literal, 2092),
     (sym_signed_real_value, 2105), (sym_bool_literal, 2090), (sym_bool_literal_with_string, 2114),
     (sym_bool_literal_with_numeric, 2114), (sym_char_literal, 2090), (sym_char_str, 2120),
     (sym_time_literal, 2090), (sym_duration, 2123), (sym_time, 2087), (sym_ltime, 2087),
     (sym_time_of_day, 2123), (sym_tod, 2091), (sym_ltod, 2091), (sym_date, 2123),
     (sym_short_date, 2066), (sym_long_date, 2066), (sym_date_and_time, 2123),
     (sym_short_date_and_time, 2067), (sym_long_date_and_time, 2067), (sym_int_type_name, 9449),
     (sym_sign_int_type_name, 2352), (sym_unsign_int_type_name, 2352), (sym_real_type_name, 9455),
     (sym_string_type_name, 9457), (sym_string_name, 2353), (sym_char_name, 2353),
     (sym_multibits_type_name, 9449), (sym_subrange, 8930), (sym_enum_value_spec, 7990),
     (sym_enum_value, 2089), (sym_direct_variable, 2060), (sym_ref_value, 2089),
     (sym_ref_addr, 2096), (sym_deref_expression, 2016), (sym_variable, 2054),
     (sym_var_access, 2016), (sym__expression, 3268), (sym_fold_expression, 2088),
     (sym_pack_element, 2088), (sym__primary_expression, 2088),
     (sym_parenthesized_expression, 2089), (sym_boolean_operator, 2088), (sym_or_operator, 2093),
     (sym_xor_operator, 2093), (sym_and_operator, 2093), (sym_comparison_operator, 2088),
     (sym_eq_operator, 2102), (sym_ord_operator, 2102), (sym_add_operator, 2088),
     (sym_mult_operator, 2088), (sym_power_operator, 2088), (sym_unary_operator, 2088),
     (sym_unary, 61), (sym_constant_expr, 8857), (sym_variable_access, 2089), (sym_func_call, 2089),
     (sym_begin_path_expression, 2049), (sym_invocation, 2044), (sym_any_invocation, 2043),
     (sym_this_invocation, 2019), (sym_super_invocation, 2019), (sym_super_body_invocation, 2043),
     (sym_path_expression, 2002), (sym_field_expression, 2016), (sym_index_expression, 2016),
     (sym_identifier, 276), (aux_sym_ERR_unexpected_this_in_path_token1, 37),
     (aux_sym_ERR_unexpected_super_in_path_token1, 39), (sym_line_comment, 3),
     (anon_sym_LPAREN, 43), (anon_sym_RPAREN, 278), (sym_unsigned_int, 47),
     (sym__explicit_signed_int, 47), (sym_binary_int, 49), (sym_octal_int, 49), (sym_hex_int, 51),
     (sym__explicit_signed_real, 53), (sym_real_value, 53),
     (aux_sym_bool_literal_with_string_token1, 55), (aux_sym_bool_literal_with_string_token2, 57),
     (aux_sym_bool_literal_with_string_token3, 57), (sym_s_byte_char_str, 59),
     (sym_d_byte_char_str, 59), (aux_sym_time_token1, 61), (anon_sym_PLUS, 63), (anon_sym_DASH, 63),
     (aux_sym_ltime_token1, 65), (aux_sym_tod_token1, 67), (aux_sym_ltod_token1, 69),
     (aux_sym_short_date_token1, 71), (aux_sym_long_date_token1, 73),
     (aux_sym_short_date_and_time_token1, 75), (aux_sym_long_date_and_time_token1, 77),
     (aux_sym_sign_int_type_name_token1, 79), (aux_sym_sign_int_type_name_token2, 79),
     (aux_sym_sign_int_type_name_token3, 79), (aux_sym_sign_int_type_name_token4, 79),
     (aux_sym_unsign_int_type_name_token1, 81), (aux_sym_unsign_int_type_name_token2, 81),
     (aux_sym_unsign_int_type_name_token3, 81), (aux_sym_unsign_int_type_name_token4, 81),
     (aux_sym_real_type_name_token1, 83), (aux_sym_real_type_name_token2, 83),
     (aux_sym_string_name_token1, 85), (aux_sym_char_name_token1, 87),
     (aux_sym_multibits_type_name_token1, 89), (aux_sym_multibits_type_name_token2, 89),
     (aux_sym_multibits_type_name_token3, 89), (aux_sym_multibits_type_name_token4, 89),
     (anon_sym_PERCENT, 91), (aux_sym_ref_value_token1, 93), (aux_sym_ref_addr_token1, 95),
     (anon_sym_DOT_DOT_DOT, 97), (aux_sym_unary_token1, 63), (sym_c_style_comment, 3),
     (sym_pascal_style_comment, 3), (sym_pragma, 3), (sym__minus_before_base, 99),
     (sym__plus_before_base, 99)]"

lemma ts_parse_row_19_scan: "row_scan tokens_4_1 0 ts_parse_row_19 = Some (Suc (Suc (Suc (Suc (Suc (Suc 0))))))"
  unfolding ts_parse_row_19_def by simp

text \<open>Lines 55472 to 55600.\<close>

definition ts_parse_row_20 :: parse_row where
  "ts_parse_row_20 =
    [(sym_ERR_unexpected_this_in_path, 2018), (sym_ERR_unexpected_super_in_path, 2018),
     (sym_constant, 2089), (sym_numeric_literal, 2090), (sym_int_literal, 2092),
     (sym_int_kind, 9320), (sym_signed_int, 2111), (sym_real_literal, 2092),
     (sym_signed_real_value, 2105), (sym_bool_literal, 2090), (sym_bool_literal_with_string, 2114),
     (sym_bool_literal_with_numeric, 2114), (sym_char_literal, 2090), (sym_char_str, 2120),
     (sym_time_literal, 2090), (sym_duration, 2123), (sym_time, 2087), (sym_ltime, 2087),
     (sym_time_of_day, 2123), (sym_tod, 2091), (sym_ltod, 2091), (sym_date, 2123),
     (sym_short_date, 2066), (sym_long_date, 2066), (sym_date_and_time, 2123),
     (sym_short_date_and_time, 2067), (sym_long_date_and_time, 2067), (sym_int_type_name, 9449),
     (sym_sign_int_type_name, 2352), (sym_unsign_int_type_name, 2352), (sym_real_type_name, 9455),
     (sym_string_type_name, 9457), (sym_string_name, 2353), (sym_char_name, 2353),
     (sym_multibits_type_name, 9449), (sym_enum_value, 2089), (sym_direct_variable, 2060),
     (sym_ref_value, 2089), (sym_ref_addr, 2096), (sym_deref_expression, 2016),
     (sym_variable, 2054), (sym_var_access, 2016), (sym__expression, 3312),
     (sym_fold_expression, 2088), (sym_pack_element, 2088), (sym__primary_expression, 2088),
     (sym_parenthesized_expression, 2089), (sym_boolean_operator, 2088), (sym_or_operator, 2093),
     (sym_xor_operator, 2093), (sym_and_operator, 2093), (sym_comparison_operator, 2088),
     (sym_eq_operator, 2102), (sym_ord_operator, 2102), (sym_add_operator, 2088),
     (sym_mult_operator, 2088), (sym_power_operator, 2088), (sym_unary_operator, 2088),
     (sym_unary, 61), (sym_variable_access, 2089), (sym_func_call, 2089), (sym_param_assign, 8026),
     (sym_param_assign_input, 8115), (sym_param_assign_output, 8115),
     (sym_begin_path_expression, 2049), (sym_invocation, 2044), (sym_any_invocation, 2043),
     (sym_this_invocation, 2019), (sym_super_invocation, 2019), (sym_super_body_invocation, 2043),
     (sym_path_expression, 2002), (sym_field_expression, 2016), (sym_index_expression, 2016),
     (sym_identifier, 280), (aux_sym_ERR_unexpected_this_in_path_token1, 37),
     (aux_sym_ERR_unexpected_super_in_path_token1, 39), (sym_line_comment, 3),
     (anon_sym_LPAREN, 43), (anon_sym_RPAREN, 282), (sym_unsigned_int, 47),
     (sym__explicit_signed_int, 47), (sym_binary_int, 49), (sym_octal_int, 49), (sym_hex_int, 51),
     (sym__explicit_signed_real, 53), (sym_real_value, 53),
     (aux_sym_bool_literal_with_string_token1, 55), (aux_sym_bool_literal_with_string_token2, 57),
     (aux_sym_bool_literal_with_string_token3, 57), (sym_s_byte_char_str, 59),
     (sym_d_byte_char_str, 59), (aux_sym_time_token1, 61), (anon_sym_PLUS, 63), (anon_sym_DASH, 63),
     (aux_sym_ltime_token1, 65), (aux_sym_tod_token1, 67), (aux_sym_ltod_token1, 69),
     (aux_sym_short_date_token1, 71), (aux_sym_long_date_token1, 73),
     (aux_sym_short_date_and_time_token1, 75), (aux_sym_long_date_and_time_token1, 77),
     (aux_sym_sign_int_type_name_token1, 79), (aux_sym_sign_int_type_name_token2, 79),
     (aux_sym_sign_int_type_name_token3, 79), (aux_sym_sign_int_type_name_token4, 79),
     (aux_sym_unsign_int_type_name_token1, 81), (aux_sym_unsign_int_type_name_token2, 81),
     (aux_sym_unsign_int_type_name_token3, 81), (aux_sym_unsign_int_type_name_token4, 81),
     (aux_sym_real_type_name_token1, 83), (aux_sym_real_type_name_token2, 83),
     (aux_sym_string_name_token1, 85), (aux_sym_char_name_token1, 87),
     (aux_sym_multibits_type_name_token1, 89), (aux_sym_multibits_type_name_token2, 89),
     (aux_sym_multibits_type_name_token3, 89), (aux_sym_multibits_type_name_token4, 89),
     (anon_sym_PERCENT, 91), (aux_sym_ref_value_token1, 93), (aux_sym_ref_addr_token1, 95),
     (anon_sym_DOT_DOT_DOT, 97), (aux_sym_unary_token1, 284), (sym_c_style_comment, 3),
     (sym_pascal_style_comment, 3), (sym_pragma, 3), (sym__minus_before_base, 99),
     (sym__plus_before_base, 99)]"

lemma ts_parse_row_20_scan: "row_scan tokens_4_1 0 ts_parse_row_20 = Some (Suc (Suc (Suc (Suc (Suc (Suc 0))))))"
  unfolding ts_parse_row_20_def by simp

text \<open>Lines 55601 to 55729.\<close>

definition ts_parse_row_21 :: parse_row where
  "ts_parse_row_21 =
    [(sym_ERR_unexpected_this_in_path, 2018), (sym_ERR_unexpected_super_in_path, 2018),
     (sym_constant, 2089), (sym_numeric_literal, 2090), (sym_int_literal, 2092),
     (sym_int_kind, 9320), (sym_signed_int, 2111), (sym_real_literal, 2092),
     (sym_signed_real_value, 2105), (sym_bool_literal, 2090), (sym_bool_literal_with_string, 2114),
     (sym_bool_literal_with_numeric, 2114), (sym_char_literal, 2090), (sym_char_str, 2120),
     (sym_time_literal, 2090), (sym_duration, 2123), (sym_time, 2087), (sym_ltime, 2087),
     (sym_time_of_day, 2123), (sym_tod, 2091), (sym_ltod, 2091), (sym_date, 2123),
     (sym_short_date, 2066), (sym_long_date, 2066), (sym_date_and_time, 2123),
     (sym_short_date_and_time, 2067), (sym_long_date_and_time, 2067), (sym_int_type_name, 9449),
     (sym_sign_int_type_name, 2352), (sym_unsign_int_type_name, 2352), (sym_real_type_name, 9455),
     (sym_string_type_name, 9457), (sym_string_name, 2353), (sym_char_name, 2353),
     (sym_multibits_type_name, 9449), (sym_enum_value, 2089), (sym_direct_variable, 2060),
     (sym_ref_value, 2089), (sym_ref_addr, 2096), (sym_deref_expression, 2016),
     (sym_variable, 2054), (sym_var_access, 2016), (sym__expression, 3312),
     (sym_fold_expression, 2088), (sym_pack_element, 2088), (sym__primary_expression, 2088),
     (sym_parenthesized_expression, 2089), (sym_boolean_operator, 2088), (sym_or_operator, 2093),
     (sym_xor_operator, 2093), (sym_and_operator, 2093), (sym_comparison_operator, 2088),
     (sym_eq_operator, 2102), (sym_ord_operator, 2102), (sym_add_operator, 2088),
     (sym_mult_operator, 2088), (sym_power_operator, 2088), (sym_unary_operator, 2088),
     (sym_unary, 61), (sym_variable_access, 2089), (sym_func_call, 2089), (sym_param_assign, 8066),
     (sym_param_assign_input, 8115), (sym_param_assign_output, 8115),
     (sym_begin_path_expression, 2049), (sym_invocation, 2044), (sym_any_invocation, 2043),
     (sym_this_invocation, 2019), (sym_super_invocation, 2019), (sym_super_body_invocation, 2043),
     (sym_path_expression, 2002), (sym_field_expression, 2016), (sym_index_expression, 2016),
     (sym_identifier, 280), (aux_sym_ERR_unexpected_this_in_path_token1, 37),
     (aux_sym_ERR_unexpected_super_in_path_token1, 39), (sym_line_comment, 3),
     (anon_sym_LPAREN, 43), (anon_sym_RPAREN, 286), (sym_unsigned_int, 47),
     (sym__explicit_signed_int, 47), (sym_binary_int, 49), (sym_octal_int, 49), (sym_hex_int, 51),
     (sym__explicit_signed_real, 53), (sym_real_value, 53),
     (aux_sym_bool_literal_with_string_token1, 55), (aux_sym_bool_literal_with_string_token2, 57),
     (aux_sym_bool_literal_with_string_token3, 57), (sym_s_byte_char_str, 59),
     (sym_d_byte_char_str, 59), (aux_sym_time_token1, 61), (anon_sym_PLUS, 63), (anon_sym_DASH, 63),
     (aux_sym_ltime_token1, 65), (aux_sym_tod_token1, 67), (aux_sym_ltod_token1, 69),
     (aux_sym_short_date_token1, 71), (aux_sym_long_date_token1, 73),
     (aux_sym_short_date_and_time_token1, 75), (aux_sym_long_date_and_time_token1, 77),
     (aux_sym_sign_int_type_name_token1, 79), (aux_sym_sign_int_type_name_token2, 79),
     (aux_sym_sign_int_type_name_token3, 79), (aux_sym_sign_int_type_name_token4, 79),
     (aux_sym_unsign_int_type_name_token1, 81), (aux_sym_unsign_int_type_name_token2, 81),
     (aux_sym_unsign_int_type_name_token3, 81), (aux_sym_unsign_int_type_name_token4, 81),
     (aux_sym_real_type_name_token1, 83), (aux_sym_real_type_name_token2, 83),
     (aux_sym_string_name_token1, 85), (aux_sym_char_name_token1, 87),
     (aux_sym_multibits_type_name_token1, 89), (aux_sym_multibits_type_name_token2, 89),
     (aux_sym_multibits_type_name_token3, 89), (aux_sym_multibits_type_name_token4, 89),
     (anon_sym_PERCENT, 91), (aux_sym_ref_value_token1, 93), (aux_sym_ref_addr_token1, 95),
     (anon_sym_DOT_DOT_DOT, 97), (aux_sym_unary_token1, 284), (sym_c_style_comment, 3),
     (sym_pascal_style_comment, 3), (sym_pragma, 3), (sym__minus_before_base, 99),
     (sym__plus_before_base, 99)]"

lemma ts_parse_row_21_scan: "row_scan tokens_4_1 0 ts_parse_row_21 = Some (Suc (Suc (Suc (Suc (Suc (Suc 0))))))"
  unfolding ts_parse_row_21_def by simp

text \<open>Lines 55730 to 55858.\<close>

definition ts_parse_row_22 :: parse_row where
  "ts_parse_row_22 =
    [(sym_ERR_unexpected_this_in_path, 2018), (sym_ERR_unexpected_super_in_path, 2018),
     (sym_constant, 2089), (sym_numeric_literal, 2090), (sym_int_literal, 2092),
     (sym_int_kind, 9320), (sym_signed_int, 2111), (sym_real_literal, 2092),
     (sym_signed_real_value, 2105), (sym_bool_literal, 2090), (sym_bool_literal_with_string, 2114),
     (sym_bool_literal_with_numeric, 2114), (sym_char_literal, 2090), (sym_char_str, 2120),
     (sym_time_literal, 2090), (sym_duration, 2123), (sym_time, 2087), (sym_ltime, 2087),
     (sym_time_of_day, 2123), (sym_tod, 2091), (sym_ltod, 2091), (sym_date, 2123),
     (sym_short_date, 2066), (sym_long_date, 2066), (sym_date_and_time, 2123),
     (sym_short_date_and_time, 2067), (sym_long_date_and_time, 2067), (sym_int_type_name, 9449),
     (sym_sign_int_type_name, 2352), (sym_unsign_int_type_name, 2352), (sym_real_type_name, 9455),
     (sym_string_type_name, 9457), (sym_string_name, 2353), (sym_char_name, 2353),
     (sym_multibits_type_name, 9449), (sym_enum_value, 2089), (sym_direct_variable, 2060),
     (sym_ref_value, 2089), (sym_ref_addr, 2096), (sym_deref_expression, 2016),
     (sym_variable, 2054), (sym_var_access, 2016), (sym__expression, 3312),
     (sym_fold_expression, 2088), (sym_pack_element, 2088), (sym__primary_expression, 2088),
     (sym_parenthesized_expression, 2089), (sym_boolean_operator, 2088), (sym_or_operator, 2093),
     (sym_xor_operator, 2093), (sym_and_operator, 2093), (sym_comparison_operator, 2088),
     (sym_eq_operator, 2102), (sym_ord_operator, 2102), (sym_add_operator, 2088),
     (sym_mult_operator, 2088), (sym_power_operator, 2088), (sym_unary_operator, 2088),
     (sym_unary, 61), (sym_variable_access, 2089), (sym_func_call, 2089), (sym_param_assign, 8010),
     (sym_param_assign_input, 8115), (sym_param_assign_output, 8115),
     (sym_begin_path_expression, 2049), (sym_invocation, 2044), (sym_any_invocation, 2043),
     (sym_this_invocation, 2019), (sym_super_invocation, 2019), (sym_super_body_invocation, 2043),
     (sym_path_expression, 2002), (sym_field_expression, 2016), (sym_index_expression, 2016),
     (sym_identifier, 280), (aux_sym_ERR_unexpected_this_in_path_token1, 37),
     (aux_sym_ERR_unexpected_super_in_path_token1, 39), (sym_line_comment, 3),
     (anon_sym_LPAREN, 43), (anon_sym_RPAREN, 288), (sym_unsigned_int, 47),
     (sym__explicit_signed_int, 47), (sym_binary_int, 49), (sym_octal_int, 49), (sym_hex_int, 51),
     (sym__explicit_signed_real, 53), (sym_real_value, 53),
     (aux_sym_bool_literal_with_string_token1, 55), (aux_sym_bool_literal_with_string_token2, 57),
     (aux_sym_bool_literal_with_string_token3, 57), (sym_s_byte_char_str, 59),
     (sym_d_byte_char_str, 59), (aux_sym_time_token1, 61), (anon_sym_PLUS, 63), (anon_sym_DASH, 63),
     (aux_sym_ltime_token1, 65), (aux_sym_tod_token1, 67), (aux_sym_ltod_token1, 69),
     (aux_sym_short_date_token1, 71), (aux_sym_long_date_token1, 73),
     (aux_sym_short_date_and_time_token1, 75), (aux_sym_long_date_and_time_token1, 77),
     (aux_sym_sign_int_type_name_token1, 79), (aux_sym_sign_int_type_name_token2, 79),
     (aux_sym_sign_int_type_name_token3, 79), (aux_sym_sign_int_type_name_token4, 79),
     (aux_sym_unsign_int_type_name_token1, 81), (aux_sym_unsign_int_type_name_token2, 81),
     (aux_sym_unsign_int_type_name_token3, 81), (aux_sym_unsign_int_type_name_token4, 81),
     (aux_sym_real_type_name_token1, 83), (aux_sym_real_type_name_token2, 83),
     (aux_sym_string_name_token1, 85), (aux_sym_char_name_token1, 87),
     (aux_sym_multibits_type_name_token1, 89), (aux_sym_multibits_type_name_token2, 89),
     (aux_sym_multibits_type_name_token3, 89), (aux_sym_multibits_type_name_token4, 89),
     (anon_sym_PERCENT, 91), (aux_sym_ref_value_token1, 93), (aux_sym_ref_addr_token1, 95),
     (anon_sym_DOT_DOT_DOT, 97), (aux_sym_unary_token1, 284), (sym_c_style_comment, 3),
     (sym_pascal_style_comment, 3), (sym_pragma, 3), (sym__minus_before_base, 99),
     (sym__plus_before_base, 99)]"

lemma ts_parse_row_22_scan: "row_scan tokens_4_1 0 ts_parse_row_22 = Some (Suc (Suc (Suc (Suc (Suc (Suc 0))))))"
  unfolding ts_parse_row_22_def by simp

text \<open>Lines 55859 to 55987.\<close>

definition ts_parse_row_23 :: parse_row where
  "ts_parse_row_23 =
    [(sym_ERR_unexpected_this_in_path, 2018), (sym_ERR_unexpected_super_in_path, 2018),
     (sym_constant, 2089), (sym_numeric_literal, 2090), (sym_int_literal, 2092),
     (sym_int_kind, 9320), (sym_signed_int, 2111), (sym_real_literal, 2092),
     (sym_signed_real_value, 2105), (sym_bool_literal, 2090), (sym_bool_literal_with_string, 2114),
     (sym_bool_literal_with_numeric, 2114), (sym_char_literal, 2090), (sym_char_str, 2120),
     (sym_time_literal, 2090), (sym_duration, 2123), (sym_time, 2087), (sym_ltime, 2087),
     (sym_time_of_day, 2123), (sym_tod, 2091), (sym_ltod, 2091), (sym_date, 2123),
     (sym_short_date, 2066), (sym_long_date, 2066), (sym_date_and_time, 2123),
     (sym_short_date_and_time, 2067), (sym_long_date_and_time, 2067), (sym_int_type_name, 9449),
     (sym_sign_int_type_name, 2352), (sym_unsign_int_type_name, 2352), (sym_real_type_name, 9455),
     (sym_string_type_name, 9457), (sym_string_name, 2353), (sym_char_name, 2353),
     (sym_multibits_type_name, 9449), (sym_enum_value, 2089), (sym_direct_variable, 2060),
     (sym_ref_value, 2089), (sym_ref_addr, 2096), (sym_deref_expression, 2016),
     (sym_variable, 2054), (sym_var_access, 2016), (sym__expression, 3312),
     (sym_fold_expression, 2088), (sym_pack_element, 2088), (sym__primary_expression, 2088),
     (sym_parenthesized_expression, 2089), (sym_boolean_operator, 2088), (sym_or_operator, 2093),
     (sym_xor_operator, 2093), (sym_and_operator, 2093), (sym_comparison_operator, 2088),
     (sym_eq_operator, 2102), (sym_ord_operator, 2102), (sym_add_operator, 2088),
     (sym_mult_operator, 2088), (sym_power_operator, 2088), (sym_unary_operator, 2088),
     (sym_unary, 61), (sym_variable_access, 2089), (sym_func_call, 2089), (sym_param_assign, 8055),
     (sym_param_assign_input, 8115), (sym_param_assign_output, 8115),
     (sym_begin_path_expression, 2049), (sym_invocation, 2044), (sym_any_invocation, 2043),
     (sym_this_invocation, 2019), (sym_super_invocation, 2019), (sym_super_body_invocation, 2043),
     (sym_path_expression, 2002), (sym_field_expression, 2016), (sym_index_expression, 2016),
     (sym_identifier, 280), (aux_sym_ERR_unexpected_this_in_path_token1, 37),
     (aux_sym_ERR_unexpected_super_in_path_token1, 39), (sym_line_comment, 3),
     (anon_sym_LPAREN, 43), (anon_sym_RPAREN, 290), (sym_unsigned_int, 47),
     (sym__explicit_signed_int, 47), (sym_binary_int, 49), (sym_octal_int, 49), (sym_hex_int, 51),
     (sym__explicit_signed_real, 53), (sym_real_value, 53),
     (aux_sym_bool_literal_with_string_token1, 55), (aux_sym_bool_literal_with_string_token2, 57),
     (aux_sym_bool_literal_with_string_token3, 57), (sym_s_byte_char_str, 59),
     (sym_d_byte_char_str, 59), (aux_sym_time_token1, 61), (anon_sym_PLUS, 63), (anon_sym_DASH, 63),
     (aux_sym_ltime_token1, 65), (aux_sym_tod_token1, 67), (aux_sym_ltod_token1, 69),
     (aux_sym_short_date_token1, 71), (aux_sym_long_date_token1, 73),
     (aux_sym_short_date_and_time_token1, 75), (aux_sym_long_date_and_time_token1, 77),
     (aux_sym_sign_int_type_name_token1, 79), (aux_sym_sign_int_type_name_token2, 79),
     (aux_sym_sign_int_type_name_token3, 79), (aux_sym_sign_int_type_name_token4, 79),
     (aux_sym_unsign_int_type_name_token1, 81), (aux_sym_unsign_int_type_name_token2, 81),
     (aux_sym_unsign_int_type_name_token3, 81), (aux_sym_unsign_int_type_name_token4, 81),
     (aux_sym_real_type_name_token1, 83), (aux_sym_real_type_name_token2, 83),
     (aux_sym_string_name_token1, 85), (aux_sym_char_name_token1, 87),
     (aux_sym_multibits_type_name_token1, 89), (aux_sym_multibits_type_name_token2, 89),
     (aux_sym_multibits_type_name_token3, 89), (aux_sym_multibits_type_name_token4, 89),
     (anon_sym_PERCENT, 91), (aux_sym_ref_value_token1, 93), (aux_sym_ref_addr_token1, 95),
     (anon_sym_DOT_DOT_DOT, 97), (aux_sym_unary_token1, 284), (sym_c_style_comment, 3),
     (sym_pascal_style_comment, 3), (sym_pragma, 3), (sym__minus_before_base, 99),
     (sym__plus_before_base, 99)]"

lemma ts_parse_row_23_scan: "row_scan tokens_4_1 0 ts_parse_row_23 = Some (Suc (Suc (Suc (Suc (Suc (Suc 0))))))"
  unfolding ts_parse_row_23_def by simp

text \<open>Lines 55988 to 56115.\<close>

definition ts_parse_row_24 :: parse_row where
  "ts_parse_row_24 =
    [(sym_ERR_unexpected_this_in_path, 2018), (sym_ERR_unexpected_super_in_path, 2018),
     (sym_constant, 2089), (sym_numeric_literal, 2090), (sym_int_literal, 2092),
     (sym_int_kind, 9320), (sym_signed_int, 2111), (sym_real_literal, 2092),
     (sym_signed_real_value, 2105), (sym_bool_literal, 2090), (sym_bool_literal_with_string, 2114),
     (sym_bool_literal_with_numeric, 2114), (sym_char_literal, 2090), (sym_char_str, 2120),
     (sym_time_literal, 2090), (sym_duration, 2123), (sym_time, 2087), (sym_ltime, 2087),
     (sym_time_of_day, 2123), (sym_tod, 2091), (sym_ltod, 2091), (sym_date, 2123),
     (sym_short_date, 2066), (sym_long_date, 2066), (sym_date_and_time, 2123),
     (sym_short_date_and_time, 2067), (sym_long_date_and_time, 2067), (sym_int_type_name, 9449),
     (sym_sign_int_type_name, 2352), (sym_unsign_int_type_name, 2352), (sym_real_type_name, 9455),
     (sym_string_type_name, 9457), (sym_string_name, 2353), (sym_char_name, 2353),
     (sym_multibits_type_name, 9449), (sym_subrange, 7973), (sym_enum_value, 2089),
     (sym_ranges, 8851), (sym_direct_variable, 2060), (sym_ref_value, 2089), (sym_ref_addr, 2096),
     (sym_deref_expression, 2016), (sym_variable, 2054), (sym_var_access, 2016),
     (sym__expression, 3268), (sym_fold_expression, 2088), (sym_pack_element, 2088),
     (sym__primary_expression, 2088), (sym_parenthesized_expression, 2089),
     (sym_boolean_operator, 2088), (sym_or_operator, 2093), (sym_xor_operator, 2093),
     (sym_and_operator, 2093), (sym_comparison_operator, 2088), (sym_eq_operator, 2102),
     (sym_ord_operator, 2102), (sym_add_operator, 2088), (sym_mult_operator, 2088),
     (sym_power_operator, 2088), (sym_unary_operator, 2088), (sym_unary, 61),
     (sym_constant_expr, 8857), (sym_variable_access, 2089), (sym_func_call, 2089),
     (sym_begin_path_expression, 2049), (sym_invocation, 2044), (sym_any_invocation, 2043),
     (sym_this_invocation, 2019), (sym_super_invocation, 2019), (sym_super_body_invocation, 2043),
     (sym_path_expression, 2002), (sym_field_expression, 2016), (sym_index_expression, 2016),
     (sym_identifier, 35), (aux_sym_ERR_unexpected_this_in_path_token1, 37),
     (aux_sym_ERR_unexpected_super_in_path_token1, 39), (sym_line_comment, 3),
     (anon_sym_LPAREN, 43), (sym_unsigned_int, 47), (sym__explicit_signed_int, 47),
     (sym_binary_int, 49), (sym_octal_int, 49), (sym_hex_int, 51), (sym__explicit_signed_real, 53),
     (sym_real_value, 53), (aux_sym_bool_literal_with_string_token1, 55),
     (aux_sym_bool_literal_with_string_token2, 57), (aux_sym_bool_literal_with_string_token3, 57),
     (sym_s_byte_char_str, 59), (sym_d_byte_char_str, 59), (aux_sym_time_token1, 61),
     (anon_sym_PLUS, 63), (anon_sym_DASH, 63), (aux_sym_ltime_token1, 65), (aux_sym_tod_token1, 67),
     (aux_sym_ltod_token1, 69), (aux_sym_short_date_token1, 71), (aux_sym_long_date_token1, 73),
     (aux_sym_short_date_and_time_token1, 75), (aux_sym_long_date_and_time_token1, 77),
     (aux_sym_sign_int_type_name_token1, 79), (aux_sym_sign_int_type_name_token2, 79),
     (aux_sym_sign_int_type_name_token3, 79), (aux_sym_sign_int_type_name_token4, 79),
     (aux_sym_unsign_int_type_name_token1, 81), (aux_sym_unsign_int_type_name_token2, 81),
     (aux_sym_unsign_int_type_name_token3, 81), (aux_sym_unsign_int_type_name_token4, 81),
     (aux_sym_real_type_name_token1, 83), (aux_sym_real_type_name_token2, 83),
     (aux_sym_string_name_token1, 85), (aux_sym_char_name_token1, 87),
     (aux_sym_multibits_type_name_token1, 89), (aux_sym_multibits_type_name_token2, 89),
     (aux_sym_multibits_type_name_token3, 89), (aux_sym_multibits_type_name_token4, 89),
     (anon_sym_PERCENT, 91), (aux_sym_ref_value_token1, 93), (aux_sym_ref_addr_token1, 95),
     (anon_sym_DOT_DOT_DOT, 97), (aux_sym_unary_token1, 63), (sym_c_style_comment, 3),
     (sym_pascal_style_comment, 3), (sym_pragma, 3), (sym__minus_before_base, 99),
     (sym__plus_before_base, 99)]"

lemma ts_parse_row_24_scan: "row_scan tokens_4_1 0 ts_parse_row_24 = Some (Suc (Suc (Suc (Suc (Suc (Suc 0))))))"
  unfolding ts_parse_row_24_def by simp

text \<open>Lines 56116 to 56243.\<close>

definition ts_parse_row_25 :: parse_row where
  "ts_parse_row_25 =
    [(sym_ERR_unexpected_this_in_path, 2018), (sym_ERR_unexpected_super_in_path, 2018),
     (sym_constant, 2089), (sym_numeric_literal, 2090), (sym_int_literal, 2092),
     (sym_int_kind, 9320), (sym_signed_int, 2111), (sym_real_literal, 2092),
     (sym_signed_real_value, 2105), (sym_bool_literal, 2090), (sym_bool_literal_with_string, 2114),
     (sym_bool_literal_with_numeric, 2114), (sym_char_literal, 2090), (sym_char_str, 2120),
     (sym_time_literal, 2090), (sym_duration, 2123), (sym_time, 2087), (sym_ltime, 2087),
     (sym_time_of_day, 2123), (sym_tod, 2091), (sym_ltod, 2091), (sym_date, 2123),
     (sym_short_date, 2066), (sym_long_date, 2066), (sym_date_and_time, 2123),
     (sym_short_date_and_time, 2067), (sym_long_date_and_time, 2067), (sym_int_type_name, 9449),
     (sym_sign_int_type_name, 2352), (sym_unsign_int_type_name, 2352), (sym_real_type_name, 9455),
     (sym_string_type_name, 9457), (sym_string_name, 2353), (sym_char_name, 2353),
     (sym_multibits_type_name, 9449), (sym_enum_value, 2089), (sym_direct_variable, 2060),
     (sym_ref_value, 2089), (sym_ref_addr, 2096), (sym_deref_expression, 2016),
     (sym_variable, 2054), (sym_var_access, 2016), (sym__expression, 3312),
     (sym_fold_expression, 2088), (sym_pack_element, 2088), (sym__primary_expression, 2088),
     (sym_parenthesized_expression, 2089), (sym_boolean_operator, 2088), (sym_or_operator, 2093),
     (sym_xor_operator, 2093), (sym_and_operator, 2093), (sym_comparison_operator, 2088),
     (sym_eq_operator, 2102), (sym_ord_operator, 2102), (sym_add_operator, 2088),
     (sym_mult_operator, 2088), (sym_power_operator, 2088), (sym_unary_operator, 2088),
     (sym_unary, 61), (sym_variable_access, 2089), (sym_func_call, 2089), (sym_param_assign, 8099),
     (sym_param_assign_input, 8115), (sym_param_assign_output, 8115),
     (sym_begin_path_expression, 2049), (sym_invocation, 2044), (sym_any_invocation, 2043),
     (sym_this_invocation, 2019), (sym_super_invocation, 2019), (sym_super_body_invocation, 2043),
     (sym_path_expression, 2002), (sym_field_expression, 2016), (sym_index_expression, 2016),
     (sym_identifier, 280), (aux_sym_ERR_unexpected_this_in_path_token1, 37),
     (aux_sym_ERR_unexpected_super_in_path_token1, 39), (sym_line_comment, 3),
     (anon_sym_LPAREN, 43), (sym_unsigned_int, 47), (sym__explicit_signed_int, 47),
     (sym_binary_int, 49), (sym_octal_int, 49), (sym_hex_int, 51), (sym__explicit_signed_real, 53),
     (sym_real_value, 53), (aux_sym_bool_literal_with_string_token1, 55),
     (aux_sym_bool_literal_with_string_token2, 57), (aux_sym_bool_literal_with_string_token3, 57),
     (sym_s_byte_char_str, 59), (sym_d_byte_char_str, 59), (aux_sym_time_token1, 61),
     (anon_sym_PLUS, 63), (anon_sym_DASH, 63), (aux_sym_ltime_token1, 65), (aux_sym_tod_token1, 67),
     (aux_sym_ltod_token1, 69), (aux_sym_short_date_token1, 71), (aux_sym_long_date_token1, 73),
     (aux_sym_short_date_and_time_token1, 75), (aux_sym_long_date_and_time_token1, 77),
     (aux_sym_sign_int_type_name_token1, 79), (aux_sym_sign_int_type_name_token2, 79),
     (aux_sym_sign_int_type_name_token3, 79), (aux_sym_sign_int_type_name_token4, 79),
     (aux_sym_unsign_int_type_name_token1, 81), (aux_sym_unsign_int_type_name_token2, 81),
     (aux_sym_unsign_int_type_name_token3, 81), (aux_sym_unsign_int_type_name_token4, 81),
     (aux_sym_real_type_name_token1, 83), (aux_sym_real_type_name_token2, 83),
     (aux_sym_string_name_token1, 85), (aux_sym_char_name_token1, 87),
     (aux_sym_multibits_type_name_token1, 89), (aux_sym_multibits_type_name_token2, 89),
     (aux_sym_multibits_type_name_token3, 89), (aux_sym_multibits_type_name_token4, 89),
     (anon_sym_PERCENT, 91), (aux_sym_ref_value_token1, 93), (aux_sym_ref_addr_token1, 95),
     (anon_sym_DOT_DOT_DOT, 97), (aux_sym_unary_token1, 284), (sym_c_style_comment, 3),
     (sym_pascal_style_comment, 3), (sym_pragma, 3), (sym__minus_before_base, 99),
     (sym__plus_before_base, 99)]"

lemma ts_parse_row_25_scan: "row_scan tokens_4_1 0 ts_parse_row_25 = Some (Suc (Suc (Suc (Suc (Suc (Suc 0))))))"
  unfolding ts_parse_row_25_def by simp

text \<open>Lines 56244 to 56371.\<close>

definition ts_parse_row_26 :: parse_row where
  "ts_parse_row_26 =
    [(sym_ERR_unexpected_this_in_path, 2018), (sym_ERR_unexpected_super_in_path, 2018),
     (sym_constant, 2089), (sym_numeric_literal, 2090), (sym_int_literal, 2092),
     (sym_int_kind, 9320), (sym_signed_int, 2111), (sym_real_literal, 2092),
     (sym_signed_real_value, 2105), (sym_bool_literal, 2090), (sym_bool_literal_with_string, 2114),
     (sym_bool_literal_with_numeric, 2114), (sym_char_literal, 2090), (sym_char_str, 2120),
     (sym_time_literal, 2090), (sym_duration, 2123), (sym_time, 2087), (sym_ltime, 2087),
     (sym_time_of_day, 2123), (sym_tod, 2091), (sym_ltod, 2091), (sym_date, 2123),
     (sym_short_date, 2066), (sym_long_date, 2066), (sym_date_and_time, 2123),
     (sym_short_date_and_time, 2067), (sym_long_date_and_time, 2067), (sym_int_type_name, 9449),
     (sym_sign_int_type_name, 2352), (sym_unsign_int_type_name, 2352), (sym_real_type_name, 9455),
     (sym_string_type_name, 9457), (sym_string_name, 2353), (sym_char_name, 2353),
     (sym_multibits_type_name, 9449), (sym_subrange, 8133), (sym_enum_value, 2089),
     (sym_direct_variable, 2060), (sym_ref_value, 2089), (sym_ref_addr, 2096),
     (sym_deref_expression, 2016), (sym_variable, 2054), (sym_var_access, 2016),
     (sym__expression, 3268), (sym_fold_expression, 2088), (sym_pack_element, 2088),
     (sym__primary_expression, 2088), (sym_parenthesized_expression, 2089),
     (sym_boolean_operator, 2088), (sym_or_operator, 2093), (sym_xor_operator, 2093),
     (sym_and_operator, 2093), (sym_comparison_operator, 2088), (sym_eq_operator, 2102),
     (sym_ord_operator, 2102), (sym_add_operator, 2088), (sym_mult_operator, 2088),
     (sym_power_operator, 2088), (sym_unary_operator, 2088), (sym_unary, 61),
     (sym_constant_expr, 8040), (sym_variable_access, 2089), (sym_func_call, 2089),
     (sym_case_list_elem, 8124), (sym_begin_path_expression, 2049), (sym_invocation, 2044),
     (sym_any_invocation, 2043), (sym_this_invocation, 2019), (sym_super_invocation, 2019),
     (sym_super_body_invocation, 2043), (sym_path_expression, 2002), (sym_field_expression, 2016),
     (sym_index_expression, 2016), (sym_identifier, 35),
     (aux_sym_ERR_unexpected_this_in_path_token1, 37),
     (aux_sym_ERR_unexpected_super_in_path_token1, 39), (sym_line_comment, 3),
     (anon_sym_LPAREN, 43), (sym_unsigned_int, 47), (sym__explicit_signed_int, 47),
     (sym_binary_int, 49), (sym_octal_int, 49), (sym_hex_int, 51), (sym__explicit_signed_real, 53),
     (sym_real_value, 53), (aux_sym_bool_literal_with_string_token1, 55),
     (aux_sym_bool_literal_with_string_token2, 57), (aux_sym_bool_literal_with_string_token3, 57),
     (sym_s_byte_char_str, 59), (sym_d_byte_char_str, 59), (aux_sym_time_token1, 61),
     (anon_sym_PLUS, 63), (anon_sym_DASH, 63), (aux_sym_ltime_token1, 65), (aux_sym_tod_token1, 67),
     (aux_sym_ltod_token1, 69), (aux_sym_short_date_token1, 71), (aux_sym_long_date_token1, 73),
     (aux_sym_short_date_and_time_token1, 75), (aux_sym_long_date_and_time_token1, 77),
     (aux_sym_sign_int_type_name_token1, 79), (aux_sym_sign_int_type_name_token2, 79),
     (aux_sym_sign_int_type_name_token3, 79), (aux_sym_sign_int_type_name_token4, 79),
     (aux_sym_unsign_int_type_name_token1, 81), (aux_sym_unsign_int_type_name_token2, 81),
     (aux_sym_unsign_int_type_name_token3, 81), (aux_sym_unsign_int_type_name_token4, 81),
     (aux_sym_real_type_name_token1, 83), (aux_sym_real_type_name_token2, 83),
     (aux_sym_string_name_token1, 85), (aux_sym_char_name_token1, 87),
     (aux_sym_multibits_type_name_token1, 89), (aux_sym_multibits_type_name_token2, 89),
     (aux_sym_multibits_type_name_token3, 89), (aux_sym_multibits_type_name_token4, 89),
     (anon_sym_PERCENT, 91), (aux_sym_ref_value_token1, 93), (aux_sym_ref_addr_token1, 95),
     (anon_sym_DOT_DOT_DOT, 97), (aux_sym_unary_token1, 63), (sym_c_style_comment, 3),
     (sym_pascal_style_comment, 3), (sym_pragma, 3), (sym__minus_before_base, 99),
     (sym__plus_before_base, 99)]"

lemma ts_parse_row_26_scan: "row_scan tokens_4_1 0 ts_parse_row_26 = Some (Suc (Suc (Suc (Suc (Suc (Suc 0))))))"
  unfolding ts_parse_row_26_def by simp

text \<open>Lines 56372 to 56498.\<close>

definition ts_parse_row_27 :: parse_row where
  "ts_parse_row_27 =
    [(sym_ERR_unexpected_this_in_path, 2018), (sym_ERR_unexpected_super_in_path, 2018),
     (sym_constant, 2089), (sym_numeric_literal, 2090), (sym_int_literal, 2092),
     (sym_int_kind, 9320), (sym_signed_int, 2111), (sym_real_literal, 2092),
     (sym_signed_real_value, 2105), (sym_bool_literal, 2090), (sym_bool_literal_with_string, 2114),
     (sym_bool_literal_with_numeric, 2114), (sym_char_literal, 2090), (sym_char_str, 2120),
     (sym_time_literal, 2090), (sym_duration, 2123), (sym_time, 2087), (sym_ltime, 2087),
     (sym_time_of_day, 2123), (sym_tod, 2091), (sym_ltod, 2091), (sym_date, 2123),
     (sym_short_date, 2066), (sym_long_date, 2066), (sym_date_and_time, 2123),
     (sym_short_date_and_time, 2067), (sym_long_date_and_time, 2067), (sym_int_type_name, 9449),
     (sym_sign_int_type_name, 2352), (sym_unsign_int_type_name, 2352), (sym_real_type_name, 9455),
     (sym_string_type_name, 9457), (sym_string_name, 2353), (sym_char_name, 2353),
     (sym_multibits_type_name, 9449), (sym_subrange, 8101), (sym_enum_value, 2089),
     (sym_direct_variable, 2060), (sym_ref_value, 2089), (sym_ref_addr, 2096),
     (sym_deref_expression, 2016), (sym_variable, 2054), (sym_var_access, 2016),
     (sym__expression, 3268), (sym_fold_expression, 2088), (sym_pack_element, 2088),
     (sym__primary_expression, 2088), (sym_parenthesized_expression, 2089),
     (sym_boolean_operator, 2088), (sym_or_operator, 2093), (sym_xor_operator, 2093),
     (sym_and_operator, 2093), (sym_comparison_operator, 2088), (sym_eq_operator, 2102),
     (sym_ord_operator, 2102), (sym_add_operator, 2088), (sym_mult_operator, 2088),
     (sym_power_operator, 2088), (sym_unary_operator, 2088), (sym_unary, 61),
     (sym_constant_expr, 8857), (sym_variable_access, 2089), (sym_func_call, 2089),
     (sym_begin_path_expression, 2049), (sym_invocation, 2044), (sym_any_invocation, 2043),
     (sym_this_invocation, 2019), (sym_super_invocation, 2019), (sym_super_body_invocation, 2043),
     (sym_path_expression, 2002), (sym_field_expression, 2016), (sym_index_expression, 2016),
     (sym_identifier, 35), (aux_sym_ERR_unexpected_this_in_path_token1, 37),
     (aux_sym_ERR_unexpected_super_in_path_token1, 39), (sym_line_comment, 3),
     (anon_sym_LPAREN, 43), (sym_unsigned_int, 47), (sym__explicit_signed_int, 47),
     (sym_binary_int, 49), (sym_octal_int, 49), (sym_hex_int, 51), (sym__explicit_signed_real, 53),
     (sym_real_value, 53), (aux_sym_bool_literal_with_string_token1, 55),
     (aux_sym_bool_literal_with_string_token2, 57), (aux_sym_bool_literal_with_string_token3, 57),
     (sym_s_byte_char_str, 59), (sym_d_byte_char_str, 59), (aux_sym_time_token1, 61),
     (anon_sym_PLUS, 63), (anon_sym_DASH, 63), (aux_sym_ltime_token1, 65), (aux_sym_tod_token1, 67),
     (aux_sym_ltod_token1, 69), (aux_sym_short_date_token1, 71), (aux_sym_long_date_token1, 73),
     (aux_sym_short_date_and_time_token1, 75), (aux_sym_long_date_and_time_token1, 77),
     (aux_sym_sign_int_type_name_token1, 79), (aux_sym_sign_int_type_name_token2, 79),
     (aux_sym_sign_int_type_name_token3, 79), (aux_sym_sign_int_type_name_token4, 79),
     (aux_sym_unsign_int_type_name_token1, 81), (aux_sym_unsign_int_type_name_token2, 81),
     (aux_sym_unsign_int_type_name_token3, 81), (aux_sym_unsign_int_type_name_token4, 81),
     (aux_sym_real_type_name_token1, 83), (aux_sym_real_type_name_token2, 83),
     (aux_sym_string_name_token1, 85), (aux_sym_char_name_token1, 87),
     (aux_sym_multibits_type_name_token1, 89), (aux_sym_multibits_type_name_token2, 89),
     (aux_sym_multibits_type_name_token3, 89), (aux_sym_multibits_type_name_token4, 89),
     (anon_sym_PERCENT, 91), (aux_sym_ref_value_token1, 93), (aux_sym_ref_addr_token1, 95),
     (anon_sym_DOT_DOT_DOT, 97), (aux_sym_unary_token1, 63), (sym_c_style_comment, 3),
     (sym_pascal_style_comment, 3), (sym_pragma, 3), (sym__minus_before_base, 99),
     (sym__plus_before_base, 99)]"

lemma ts_parse_row_27_scan: "row_scan tokens_4_1 0 ts_parse_row_27 = Some (Suc (Suc (Suc (Suc (Suc (Suc 0))))))"
  unfolding ts_parse_row_27_def by simp

text \<open>Lines 56499 to 56625.\<close>

definition ts_parse_row_28 :: parse_row where
  "ts_parse_row_28 =
    [(sym_ERR_unexpected_this_in_path, 2018), (sym_ERR_unexpected_super_in_path, 2018),
     (sym_constant, 2089), (sym_numeric_literal, 2090), (sym_int_literal, 2092),
     (sym_int_kind, 9320), (sym_signed_int, 2111), (sym_real_literal, 2092),
     (sym_signed_real_value, 2105), (sym_bool_literal, 2090), (sym_bool_literal_with_string, 2114),
     (sym_bool_literal_with_numeric, 2114), (sym_char_literal, 2090), (sym_char_str, 2120),
     (sym_time_literal, 2090), (sym_duration, 2123), (sym_time, 2087), (sym_ltime, 2087),
     (sym_time_of_day, 2123), (sym_tod, 2091), (sym_ltod, 2091), (sym_date, 2123),
     (sym_short_date, 2066), (sym_long_date, 2066), (sym_date_and_time, 2123),
     (sym_short_date_and_time, 2067), (sym_long_date_and_time, 2067), (sym_int_type_name, 9449),
     (sym_sign_int_type_name, 2352), (sym_unsign_int_type_name, 2352), (sym_real_type_name, 9455),
     (sym_string_type_name, 9457), (sym_string_name, 2353), (sym_char_name, 2353),
     (sym_multibits_type_name, 9449), (sym_enum_value, 2089), (sym_direct_variable, 2060),
     (sym_ref_value, 2089), (sym_ref_addr, 2096), (sym_deref_expression, 2016),
     (sym_variable, 2054), (sym_var_access, 2016), (sym__expression, 3268),
     (sym_fold_expression, 2088), (sym_pack_element, 2088), (sym__primary_expression, 2088),
     (sym_parenthesized_expression, 2089), (sym_boolean_operator, 2088), (sym_or_operator, 2093),
     (sym_xor_operator, 2093), (sym_and_operator, 2093), (sym_comparison_operator, 2088),
     (sym_eq_operator, 2102), (sym_ord_operator, 2102), (sym_add_operator, 2088),
     (sym_mult_operator, 2088), (sym_power_operator, 2088), (sym_unary_operator, 2088),
     (sym_unary, 61), (sym_constant_expr, 8028), (sym_variable_access, 2089), (sym_func_call, 2089),
     (sym_begin_path_expression, 2049), (sym_invocation, 2044), (sym_any_invocation, 2043),
     (sym_this_invocation, 2019), (sym_super_invocation, 2019), (sym_super_body_invocation, 2043),
     (sym_path_expression, 2002), (sym_field_expression, 2016), (sym_index_expression, 2016),
     (sym_index_value, 10237), (sym_identifier, 35),
     (aux_sym_ERR_unexpected_this_in_path_token1, 37),
     (aux_sym_ERR_unexpected_super_in_path_token1, 39), (sym_line_comment, 3),
     (anon_sym_LPAREN, 43), (sym_unsigned_int, 47), (sym__explicit_signed_int, 47),
     (sym_binary_int, 49), (sym_octal_int, 49), (sym_hex_int, 51), (sym__explicit_signed_real, 53),
     (sym_real_value, 53), (aux_sym_bool_literal_with_string_token1, 55),
     (aux_sym_bool_literal_with_string_token2, 57), (aux_sym_bool_literal_with_string_token3, 57),
     (sym_s_byte_char_str, 59), (sym_d_byte_char_str, 59), (aux_sym_time_token1, 61),
     (anon_sym_PLUS, 63), (anon_sym_DASH, 63), (aux_sym_ltime_token1, 65), (aux_sym_tod_token1, 67),
     (aux_sym_ltod_token1, 69), (aux_sym_short_date_token1, 71), (aux_sym_long_date_token1, 73),
     (aux_sym_short_date_and_time_token1, 75), (aux_sym_long_date_and_time_token1, 77),
     (aux_sym_sign_int_type_name_token1, 79), (aux_sym_sign_int_type_name_token2, 79),
     (aux_sym_sign_int_type_name_token3, 79), (aux_sym_sign_int_type_name_token4, 79),
     (aux_sym_unsign_int_type_name_token1, 81), (aux_sym_unsign_int_type_name_token2, 81),
     (aux_sym_unsign_int_type_name_token3, 81), (aux_sym_unsign_int_type_name_token4, 81),
     (aux_sym_real_type_name_token1, 83), (aux_sym_real_type_name_token2, 83),
     (aux_sym_string_name_token1, 85), (aux_sym_char_name_token1, 87),
     (aux_sym_multibits_type_name_token1, 89), (aux_sym_multibits_type_name_token2, 89),
     (aux_sym_multibits_type_name_token3, 89), (aux_sym_multibits_type_name_token4, 89),
     (anon_sym_PERCENT, 91), (aux_sym_ref_value_token1, 93), (aux_sym_ref_addr_token1, 95),
     (anon_sym_DOT_DOT_DOT, 97), (aux_sym_unary_token1, 63), (sym_c_style_comment, 3),
     (sym_pascal_style_comment, 3), (sym_pragma, 3), (sym__minus_before_base, 99),
     (sym__plus_before_base, 99)]"

lemma ts_parse_row_28_scan: "row_scan tokens_4_1 0 ts_parse_row_28 = Some (Suc (Suc (Suc (Suc (Suc (Suc 0))))))"
  unfolding ts_parse_row_28_def by simp

text \<open>Lines 56626 to 56752.\<close>

definition ts_parse_row_29 :: parse_row where
  "ts_parse_row_29 =
    [(sym_ERR_unexpected_this_in_path, 2018), (sym_ERR_unexpected_super_in_path, 2018),
     (sym_constant, 2089), (sym_numeric_literal, 2090), (sym_int_literal, 2092),
     (sym_int_kind, 9320), (sym_signed_int, 2111), (sym_real_literal, 2092),
     (sym_signed_real_value, 2105), (sym_bool_literal, 2090), (sym_bool_literal_with_string, 2114),
     (sym_bool_literal_with_numeric, 2114), (sym_char_literal, 2090), (sym_char_str, 2120),
     (sym_time_literal, 2090), (sym_duration, 2123), (sym_time, 2087), (sym_ltime, 2087),
     (sym_time_of_day, 2123), (sym_tod, 2091), (sym_ltod, 2091), (sym_date, 2123),
     (sym_short_date, 2066), (sym_long_date, 2066), (sym_date_and_time, 2123),
     (sym_short_date_and_time, 2067), (sym_long_date_and_time, 2067), (sym_int_type_name, 9449),
     (sym_sign_int_type_name, 2352), (sym_unsign_int_type_name, 2352), (sym_real_type_name, 9455),
     (sym_string_type_name, 9457), (sym_string_name, 2353), (sym_char_name, 2353),
     (sym_multibits_type_name, 9449), (sym_enum_value, 2089), (sym_direct_variable, 2060),
     (sym_ref_value, 2089), (sym_ref_addr, 2096), (sym_deref_expression, 2016),
     (sym_variable, 2054), (sym_var_access, 2016), (sym__expression, 3268),
     (sym_fold_expression, 2088), (sym_pack_element, 2088), (sym__primary_expression, 2088),
     (sym_parenthesized_expression, 2089), (sym_boolean_operator, 2088), (sym_or_operator, 2093),
     (sym_xor_operator, 2093), (sym_and_operator, 2093), (sym_comparison_operator, 2088),
     (sym_eq_operator, 2102), (sym_ord_operator, 2102), (sym_add_operator, 2088),
     (sym_mult_operator, 2088), (sym_power_operator, 2088), (sym_unary_operator, 2088),
     (sym_unary, 61), (sym_constant_expr, 7449), (sym_variable_access, 2089), (sym_func_call, 2089),
     (sym_begin_path_expression, 2049), (sym_invocation, 2044), (sym_any_invocation, 2043),
     (sym_this_invocation, 2019), (sym_super_invocation, 2019), (sym_super_body_invocation, 2043),
     (sym_path_expression, 2002), (sym_field_expression, 2016), (sym_index_expression, 2016),
     (sym_identifier, 35), (aux_sym_ERR_unexpected_this_in_path_token1, 37),
     (aux_sym_ERR_unexpected_super_in_path_token1, 39), (sym_line_comment, 3),
     (anon_sym_LPAREN, 292), (sym_unsigned_int, 47), (sym__explicit_signed_int, 47),
     (sym_binary_int, 49), (sym_octal_int, 49), (sym_hex_int, 51), (sym__explicit_signed_real, 53),
     (sym_real_value, 53), (aux_sym_bool_literal_with_string_token1, 55),
     (aux_sym_bool_literal_with_string_token2, 57), (aux_sym_bool_literal_with_string_token3, 57),
     (sym_s_byte_char_str, 59), (sym_d_byte_char_str, 59), (aux_sym_time_token1, 61),
     (anon_sym_PLUS, 63), (anon_sym_DASH, 63), (aux_sym_ltime_token1, 65), (aux_sym_tod_token1, 67),
     (aux_sym_ltod_token1, 69), (aux_sym_short_date_token1, 71), (aux_sym_long_date_token1, 73),
     (aux_sym_short_date_and_time_token1, 75), (aux_sym_long_date_and_time_token1, 77),
     (aux_sym_sign_int_type_name_token1, 79), (aux_sym_sign_int_type_name_token2, 79),
     (aux_sym_sign_int_type_name_token3, 79), (aux_sym_sign_int_type_name_token4, 79),
     (aux_sym_unsign_int_type_name_token1, 81), (aux_sym_unsign_int_type_name_token2, 81),
     (aux_sym_unsign_int_type_name_token3, 81), (aux_sym_unsign_int_type_name_token4, 81),
     (aux_sym_real_type_name_token1, 83), (aux_sym_real_type_name_token2, 83),
     (aux_sym_string_name_token1, 85), (anon_sym_LBRACK, 294), (aux_sym_char_name_token1, 87),
     (aux_sym_multibits_type_name_token1, 89), (aux_sym_multibits_type_name_token2, 89),
     (aux_sym_multibits_type_name_token3, 89), (aux_sym_multibits_type_name_token4, 89),
     (anon_sym_PERCENT, 91), (aux_sym_ref_value_token1, 93), (aux_sym_ref_addr_token1, 95),
     (anon_sym_DOT_DOT_DOT, 97), (aux_sym_unary_token1, 63), (sym_c_style_comment, 3),
     (sym_pascal_style_comment, 3), (sym_pragma, 3), (sym__minus_before_base, 99),
     (sym__plus_before_base, 99)]"

lemma ts_parse_row_29_scan: "row_scan tokens_4_1 0 ts_parse_row_29 = Some (Suc (Suc (Suc (Suc (Suc (Suc 0))))))"
  unfolding ts_parse_row_29_def by simp

text \<open>Lines 56753 to 56879.\<close>

definition ts_parse_row_30 :: parse_row where
  "ts_parse_row_30 =
    [(sym_ERR_unexpected_this_in_path, 2018), (sym_ERR_unexpected_super_in_path, 2018),
     (sym_constant, 2089), (sym_numeric_literal, 2090), (sym_int_literal, 2092),
     (sym_int_kind, 9320), (sym_signed_int, 2111), (sym_real_literal, 2092),
     (sym_signed_real_value, 2105), (sym_bool_literal, 2090), (sym_bool_literal_with_string, 2114),
     (sym_bool_literal_with_numeric, 2114), (sym_char_literal, 2090), (sym_char_str, 2120),
     (sym_time_literal, 2090), (sym_duration, 2123), (sym_time, 2087), (sym_ltime, 2087),
     (sym_time_of_day, 2123), (sym_tod, 2091), (sym_ltod, 2091), (sym_date, 2123),
     (sym_short_date, 2066), (sym_long_date, 2066), (sym_date_and_time, 2123),
     (sym_short_date_and_time, 2067), (sym_long_date_and_time, 2067), (sym_int_type_name, 9449),
     (sym_sign_int_type_name, 2352), (sym_unsign_int_type_name, 2352), (sym_real_type_name, 9455),
     (sym_string_type_name, 9457), (sym_string_name, 2353), (sym_char_name, 2353),
     (sym_multibits_type_name, 9449), (sym_enum_value, 2089), (sym_struct_elem, 8056),
     (sym_direct_variable, 2060), (sym_ref_value, 2089), (sym_ref_addr, 2096),
     (sym_deref_expression, 2016), (sym_variable, 2054), (sym_var_access, 2016),
     (sym__expression, 3337), (sym_fold_expression, 2088), (sym_pack_element, 2088),
     (sym__primary_expression, 2088), (sym_parenthesized_expression, 2089),
     (sym_boolean_operator, 2088), (sym_or_operator, 2093), (sym_xor_operator, 2093),
     (sym_and_operator, 2093), (sym_comparison_operator, 2088), (sym_eq_operator, 2102),
     (sym_ord_operator, 2102), (sym_add_operator, 2088), (sym_mult_operator, 2088),
     (sym_power_operator, 2088), (sym_unary_operator, 2088), (sym_unary, 61),
     (sym_variable_access, 2089), (sym_func_call, 2089), (sym_begin_path_expression, 2049),
     (sym_invocation, 2044), (sym_any_invocation, 2043), (sym_this_invocation, 2019),
     (sym_super_invocation, 2019), (sym_super_body_invocation, 2043), (sym_path_expression, 2002),
     (sym_field_expression, 2016), (sym_index_expression, 2016), (sym_identifier, 147),
     (aux_sym_ERR_unexpected_this_in_path_token1, 37),
     (aux_sym_ERR_unexpected_super_in_path_token1, 39), (sym_line_comment, 3),
     (anon_sym_LPAREN, 43), (anon_sym_RPAREN, 296), (sym_unsigned_int, 47),
     (sym__explicit_signed_int, 47), (sym_binary_int, 49), (sym_octal_int, 49), (sym_hex_int, 51),
     (sym__explicit_signed_real, 53), (sym_real_value, 53),
     (aux_sym_bool_literal_with_string_token1, 55), (aux_sym_bool_literal_with_string_token2, 57),
     (aux_sym_bool_literal_with_string_token3, 57), (sym_s_byte_char_str, 59),
     (sym_d_byte_char_str, 59), (aux_sym_time_token1, 61), (anon_sym_PLUS, 63), (anon_sym_DASH, 63),
     (aux_sym_ltime_token1, 65), (aux_sym_tod_token1, 67), (aux_sym_ltod_token1, 69),
     (aux_sym_short_date_token1, 71), (aux_sym_long_date_token1, 73),
     (aux_sym_short_date_and_time_token1, 75), (aux_sym_long_date_and_time_token1, 77),
     (aux_sym_sign_int_type_name_token1, 79), (aux_sym_sign_int_type_name_token2, 79),
     (aux_sym_sign_int_type_name_token3, 79), (aux_sym_sign_int_type_name_token4, 79),
     (aux_sym_unsign_int_type_name_token1, 81), (aux_sym_unsign_int_type_name_token2, 81),
     (aux_sym_unsign_int_type_name_token3, 81), (aux_sym_unsign_int_type_name_token4, 81),
     (aux_sym_real_type_name_token1, 83), (aux_sym_real_type_name_token2, 83),
     (aux_sym_string_name_token1, 85), (aux_sym_char_name_token1, 87),
     (aux_sym_multibits_type_name_token1, 89), (aux_sym_multibits_type_name_token2, 89),
     (aux_sym_multibits_type_name_token3, 89), (aux_sym_multibits_type_name_token4, 89),
     (anon_sym_PERCENT, 91), (aux_sym_ref_value_token1, 93), (aux_sym_ref_addr_token1, 95),
     (anon_sym_DOT_DOT_DOT, 97), (aux_sym_unary_token1, 63), (sym_c_style_comment, 3),
     (sym_pascal_style_comment, 3), (sym_pragma, 3), (sym__minus_before_base, 99),
     (sym__plus_before_base, 99)]"

lemma ts_parse_row_30_scan: "row_scan tokens_4_1 0 ts_parse_row_30 = Some (Suc (Suc (Suc (Suc (Suc (Suc 0))))))"
  unfolding ts_parse_row_30_def by simp

text \<open>Lines 56880 to 57006.\<close>

definition ts_parse_row_31 :: parse_row where
  "ts_parse_row_31 =
    [(sym_ERR_unexpected_this_in_path, 2018), (sym_ERR_unexpected_super_in_path, 2018),
     (sym_constant, 2089), (sym_numeric_literal, 2090), (sym_int_literal, 2092),
     (sym_int_kind, 9320), (sym_signed_int, 2111), (sym_real_literal, 2092),
     (sym_signed_real_value, 2105), (sym_bool_literal, 2090), (sym_bool_literal_with_string, 2114),
     (sym_bool_literal_with_numeric, 2114), (sym_char_literal, 2090), (sym_char_str, 2120),
     (sym_time_literal, 2090), (sym_duration, 2123), (sym_time, 2087), (sym_ltime, 2087),
     (sym_time_of_day, 2123), (sym_tod, 2091), (sym_ltod, 2091), (sym_date, 2123),
     (sym_short_date, 2066), (sym_long_date, 2066), (sym_date_and_time, 2123),
     (sym_short_date_and_time, 2067), (sym_long_date_and_time, 2067), (sym_int_type_name, 9449),
     (sym_sign_int_type_name, 2352), (sym_unsign_int_type_name, 2352), (sym_real_type_name, 9455),
     (sym_string_type_name, 9457), (sym_string_name, 2353), (sym_char_name, 2353),
     (sym_multibits_type_name, 9449), (sym_enum_value, 2089), (sym_direct_variable, 2060),
     (sym_ref_value, 2089), (sym_ref_addr, 2096), (sym_deref_expression, 2016),
     (sym_variable, 2054), (sym_var_access, 2016), (sym__expression, 3268),
     (sym_fold_expression, 2088), (sym_pack_element, 2088), (sym__primary_expression, 2088),
     (sym_parenthesized_expression, 2089), (sym_boolean_operator, 2088), (sym_or_operator, 2093),
     (sym_xor_operator, 2093), (sym_and_operator, 2093), (sym_comparison_operator, 2088),
     (sym_eq_operator, 2102), (sym_ord_operator, 2102), (sym_add_operator, 2088),
     (sym_mult_operator, 2088), (sym_power_operator, 2088), (sym_unary_operator, 2088),
     (sym_unary, 61), (sym_constant_expr, 8028), (sym_variable_access, 2089), (sym_func_call, 2089),
     (sym_begin_path_expression, 2049), (sym_invocation, 2044), (sym_any_invocation, 2043),
     (sym_this_invocation, 2019), (sym_super_invocation, 2019), (sym_super_body_invocation, 2043),
     (sym_path_expression, 2002), (sym_field_expression, 2016), (sym_index_expression, 2016),
     (sym_index_value, 10300), (sym_identifier, 35),
     (aux_sym_ERR_unexpected_this_in_path_token1, 37),
     (aux_sym_ERR_unexpected_super_in_path_token1, 39), (sym_line_comment, 3),
     (anon_sym_LPAREN, 43), (sym_unsigned_int, 47), (sym__explicit_signed_int, 47),
     (sym_binary_int, 49), (sym_octal_int, 49), (sym_hex_int, 51), (sym__explicit_signed_real, 53),
     (sym_real_value, 53), (aux_sym_bool_literal_with_string_token1, 55),
     (aux_sym_bool_literal_with_string_token2, 57), (aux_sym_bool_literal_with_string_token3, 57),
     (sym_s_byte_char_str, 59), (sym_d_byte_char_str, 59), (aux_sym_time_token1, 61),
     (anon_sym_PLUS, 63), (anon_sym_DASH, 63), (aux_sym_ltime_token1, 65), (aux_sym_tod_token1, 67),
     (aux_sym_ltod_token1, 69), (aux_sym_short_date_token1, 71), (aux_sym_long_date_token1, 73),
     (aux_sym_short_date_and_time_token1, 75), (aux_sym_long_date_and_time_token1, 77),
     (aux_sym_sign_int_type_name_token1, 79), (aux_sym_sign_int_type_name_token2, 79),
     (aux_sym_sign_int_type_name_token3, 79), (aux_sym_sign_int_type_name_token4, 79),
     (aux_sym_unsign_int_type_name_token1, 81), (aux_sym_unsign_int_type_name_token2, 81),
     (aux_sym_unsign_int_type_name_token3, 81), (aux_sym_unsign_int_type_name_token4, 81),
     (aux_sym_real_type_name_token1, 83), (aux_sym_real_type_name_token2, 83),
     (aux_sym_string_name_token1, 85), (aux_sym_char_name_token1, 87),
     (aux_sym_multibits_type_name_token1, 89), (aux_sym_multibits_type_name_token2, 89),
     (aux_sym_multibits_type_name_token3, 89), (aux_sym_multibits_type_name_token4, 89),
     (anon_sym_PERCENT, 91), (aux_sym_ref_value_token1, 93), (aux_sym_ref_addr_token1, 95),
     (anon_sym_DOT_DOT_DOT, 97), (aux_sym_unary_token1, 63), (sym_c_style_comment, 3),
     (sym_pascal_style_comment, 3), (sym_pragma, 3), (sym__minus_before_base, 99),
     (sym__plus_before_base, 99)]"

lemma ts_parse_row_31_scan: "row_scan tokens_4_1 0 ts_parse_row_31 = Some (Suc (Suc (Suc (Suc (Suc (Suc 0))))))"
  unfolding ts_parse_row_31_def by simp

text \<open>Lines 57007 to 57133.\<close>

definition ts_parse_row_32 :: parse_row where
  "ts_parse_row_32 =
    [(sym_ERR_unexpected_this_in_path, 2018), (sym_ERR_unexpected_super_in_path, 2018),
     (sym_constant, 2089), (sym_numeric_literal, 2090), (sym_int_literal, 2092),
     (sym_int_kind, 9320), (sym_signed_int, 2111), (sym_real_literal, 2092),
     (sym_signed_real_value, 2105), (sym_bool_literal, 2090), (sym_bool_literal_with_string, 2114),
     (sym_bool_literal_with_numeric, 2114), (sym_char_literal, 2090), (sym_char_str, 2120),
     (sym_time_literal, 2090), (sym_duration, 2123), (sym_time, 2087), (sym_ltime, 2087),
     (sym_time_of_day, 2123), (sym_tod, 2091), (sym_ltod, 2091), (sym_date, 2123),
     (sym_short_date, 2066), (sym_long_date, 2066), (sym_date_and_time, 2123),
     (sym_short_date_and_time, 2067), (sym_long_date_and_time, 2067), (sym_int_type_name, 9449),
     (sym_sign_int_type_name, 2352), (sym_unsign_int_type_name, 2352), (sym_real_type_name, 9455),
     (sym_string_type_name, 9457), (sym_string_name, 2353), (sym_char_name, 2353),
     (sym_multibits_type_name, 9449), (sym_subrange, 8930), (sym_enum_value, 2089),
     (sym_direct_variable, 2060), (sym_ref_value, 2089), (sym_ref_addr, 2096),
     (sym_deref_expression, 2016), (sym_variable, 2054), (sym_var_access, 2016),
     (sym__expression, 3268), (sym_fold_expression, 2088), (sym_pack_element, 2088),
     (sym__primary_expression, 2088), (sym_parenthesized_expression, 2089),
     (sym_boolean_operator, 2088), (sym_or_operator, 2093), (sym_xor_operator, 2093),
     (sym_and_operator, 2093), (sym_comparison_operator, 2088), (sym_eq_operator, 2102),
     (sym_ord_operator, 2102), (sym_add_operator, 2088), (sym_mult_operator, 2088),
     (sym_power_operator, 2088), (sym_unary_operator, 2088), (sym_unary, 61),
     (sym_constant_expr, 8857), (sym_variable_access, 2089), (sym_func_call, 2089),
     (sym_begin_path_expression, 2049), (sym_invocation, 2044), (sym_any_invocation, 2043),
     (sym_this_invocation, 2019), (sym_super_invocation, 2019), (sym_super_body_invocation, 2043),
     (sym_path_expression, 2002), (sym_field_expression, 2016), (sym_index_expression, 2016),
     (sym_identifier, 35), (aux_sym_ERR_unexpected_this_in_path_token1, 37),
     (aux_sym_ERR_unexpected_super_in_path_token1, 39), (sym_line_comment, 3),
     (anon_sym_LPAREN, 43), (sym_unsigned_int, 47), (sym__explicit_signed_int, 47),
     (sym_binary_int, 49), (sym_octal_int, 49), (sym_hex_int, 51), (sym__explicit_signed_real, 53),
     (sym_real_value, 53), (aux_sym_bool_literal_with_string_token1, 55),
     (aux_sym_bool_literal_with_string_token2, 57), (aux_sym_bool_literal_with_string_token3, 57),
     (sym_s_byte_char_str, 59), (sym_d_byte_char_str, 59), (aux_sym_time_token1, 61),
     (anon_sym_PLUS, 63), (anon_sym_DASH, 63), (aux_sym_ltime_token1, 65), (aux_sym_tod_token1, 67),
     (aux_sym_ltod_token1, 69), (aux_sym_short_date_token1, 71), (aux_sym_long_date_token1, 73),
     (aux_sym_short_date_and_time_token1, 75), (aux_sym_long_date_and_time_token1, 77),
     (aux_sym_sign_int_type_name_token1, 79), (aux_sym_sign_int_type_name_token2, 79),
     (aux_sym_sign_int_type_name_token3, 79), (aux_sym_sign_int_type_name_token4, 79),
     (aux_sym_unsign_int_type_name_token1, 81), (aux_sym_unsign_int_type_name_token2, 81),
     (aux_sym_unsign_int_type_name_token3, 81), (aux_sym_unsign_int_type_name_token4, 81),
     (aux_sym_real_type_name_token1, 83), (aux_sym_real_type_name_token2, 83),
     (aux_sym_string_name_token1, 85), (aux_sym_char_name_token1, 87),
     (aux_sym_multibits_type_name_token1, 89), (aux_sym_multibits_type_name_token2, 89),
     (aux_sym_multibits_type_name_token3, 89), (aux_sym_multibits_type_name_token4, 89),
     (anon_sym_PERCENT, 91), (aux_sym_ref_value_token1, 93), (aux_sym_ref_addr_token1, 95),
     (anon_sym_DOT_DOT_DOT, 97), (aux_sym_unary_token1, 63), (sym_c_style_comment, 3),
     (sym_pascal_style_comment, 3), (sym_pragma, 3), (sym__minus_before_base, 99),
     (sym__plus_before_base, 99)]"

lemma ts_parse_row_32_scan: "row_scan tokens_4_1 0 ts_parse_row_32 = Some (Suc (Suc (Suc (Suc (Suc (Suc 0))))))"
  unfolding ts_parse_row_32_def by simp

text \<open>Lines 57134 to 57260.\<close>

definition ts_parse_row_33 :: parse_row where
  "ts_parse_row_33 =
    [(sym_ERR_unexpected_this_in_path, 2018), (sym_ERR_unexpected_super_in_path, 2018),
     (sym_constant, 2089), (sym_numeric_literal, 2090), (sym_int_literal, 2092),
     (sym_int_kind, 9320), (sym_signed_int, 2111), (sym_real_literal, 2092),
     (sym_signed_real_value, 2105), (sym_bool_literal, 2090), (sym_bool_literal_with_string, 2114),
     (sym_bool_literal_with_numeric, 2114), (sym_char_literal, 2090), (sym_char_str, 2120),
     (sym_time_literal, 2090), (sym_duration, 2123), (sym_time, 2087), (sym_ltime, 2087),
     (sym_time_of_day, 2123), (sym_tod, 2091), (sym_ltod, 2091), (sym_date, 2123),
     (sym_short_date, 2066), (sym_long_date, 2066), (sym_date_and_time, 2123),
     (sym_short_date_and_time, 2067), (sym_long_date_and_time, 2067), (sym_int_type_name, 9449),
     (sym_sign_int_type_name, 2352), (sym_unsign_int_type_name, 2352), (sym_real_type_name, 9455),
     (sym_string_type_name, 9457), (sym_string_name, 2353), (sym_char_name, 2353),
     (sym_multibits_type_name, 9449), (sym_enum_value, 2089), (sym_direct_variable, 2060),
     (sym_ref_value, 2089), (sym_ref_addr, 2096), (sym_deref_expression, 2016),
     (sym_variable, 2054), (sym_var_access, 2016), (sym__expression, 3268),
     (sym_fold_expression, 2088), (sym_pack_element, 2088), (sym__primary_expression, 2088),
     (sym_parenthesized_expression, 2089), (sym_boolean_operator, 2088), (sym_or_operator, 2093),
     (sym_xor_operator, 2093), (sym_and_operator, 2093), (sym_comparison_operator, 2088),
     (sym_eq_operator, 2102), (sym_ord_operator, 2102), (sym_add_operator, 2088),
     (sym_mult_operator, 2088), (sym_power_operator, 2088), (sym_unary_operator, 2088),
     (sym_unary, 61), (sym_constant_expr, 8028), (sym_variable_access, 2089), (sym_func_call, 2089),
     (sym_begin_path_expression, 2049), (sym_invocation, 2044), (sym_any_invocation, 2043),
     (sym_this_invocation, 2019), (sym_super_invocation, 2019), (sym_super_body_invocation, 2043),
     (sym_path_expression, 2002), (sym_field_expression, 2016), (sym_index_expression, 2016),
     (sym_index_value, 10090), (sym_identifier, 35),
     (aux_sym_ERR_unexpected_this_in_path_token1, 37),
     (aux_sym_ERR_unexpected_super_in_path_token1, 39), (sym_line_comment, 3),
     (anon_sym_LPAREN, 43), (sym_unsigned_int, 47), (sym__explicit_signed_int, 47),
     (sym_binary_int, 49), (sym_octal_int, 49), (sym_hex_int, 51), (sym__explicit_signed_real, 53),
     (sym_real_value, 53), (aux_sym_bool_literal_with_string_token1, 55),
     (aux_sym_bool_literal_with_string_token2, 57), (aux_sym_bool_literal_with_string_token3, 57),
     (sym_s_byte_char_str, 59), (sym_d_byte_char_str, 59), (aux_sym_time_token1, 61),
     (anon_sym_PLUS, 63), (anon_sym_DASH, 63), (aux_sym_ltime_token1, 65), (aux_sym_tod_token1, 67),
     (aux_sym_ltod_token1, 69), (aux_sym_short_date_token1, 71), (aux_sym_long_date_token1, 73),
     (aux_sym_short_date_and_time_token1, 75), (aux_sym_long_date_and_time_token1, 77),
     (aux_sym_sign_int_type_name_token1, 79), (aux_sym_sign_int_type_name_token2, 79),
     (aux_sym_sign_int_type_name_token3, 79), (aux_sym_sign_int_type_name_token4, 79),
     (aux_sym_unsign_int_type_name_token1, 81), (aux_sym_unsign_int_type_name_token2, 81),
     (aux_sym_unsign_int_type_name_token3, 81), (aux_sym_unsign_int_type_name_token4, 81),
     (aux_sym_real_type_name_token1, 83), (aux_sym_real_type_name_token2, 83),
     (aux_sym_string_name_token1, 85), (aux_sym_char_name_token1, 87),
     (aux_sym_multibits_type_name_token1, 89), (aux_sym_multibits_type_name_token2, 89),
     (aux_sym_multibits_type_name_token3, 89), (aux_sym_multibits_type_name_token4, 89),
     (anon_sym_PERCENT, 91), (aux_sym_ref_value_token1, 93), (aux_sym_ref_addr_token1, 95),
     (anon_sym_DOT_DOT_DOT, 97), (aux_sym_unary_token1, 63), (sym_c_style_comment, 3),
     (sym_pascal_style_comment, 3), (sym_pragma, 3), (sym__minus_before_base, 99),
     (sym__plus_before_base, 99)]"

lemma ts_parse_row_33_scan: "row_scan tokens_4_1 0 ts_parse_row_33 = Some (Suc (Suc (Suc (Suc (Suc (Suc 0))))))"
  unfolding ts_parse_row_33_def by simp

text \<open>Lines 57261 to 57387.\<close>

definition ts_parse_row_34 :: parse_row where
  "ts_parse_row_34 =
    [(sym_ERR_unexpected_this_in_path, 2018), (sym_ERR_unexpected_super_in_path, 2018),
     (sym_constant, 2089), (sym_numeric_literal, 2090), (sym_int_literal, 2092),
     (sym_int_kind, 9320), (sym_signed_int, 2111), (sym_real_literal, 2092),
     (sym_signed_real_value, 2105), (sym_bool_literal, 2090), (sym_bool_literal_with_string, 2114),
     (sym_bool_literal_with_numeric, 2114), (sym_char_literal, 2090), (sym_char_str, 2120),
     (sym_time_literal, 2090), (sym_duration, 2123), (sym_time, 2087), (sym_ltime, 2087),
     (sym_time_of_day, 2123), (sym_tod, 2091), (sym_ltod, 2091), (sym_date, 2123),
     (sym_short_date, 2066), (sym_long_date, 2066), (sym_date_and_time, 2123),
     (sym_short_date_and_time, 2067), (sym_long_date_and_time, 2067), (sym_int_type_name, 9449),
     (sym_sign_int_type_name, 2352), (sym_unsign_int_type_name, 2352), (sym_real_type_name, 9455),
     (sym_string_type_name, 9457), (sym_string_name, 2353), (sym_char_name, 2353),
     (sym_multibits_type_name, 9449), (sym_enum_value, 2089), (sym_direct_variable, 2060),
     (sym_ref_value, 2089), (sym_ref_addr, 2096), (sym_deref_expression, 2016),
     (sym_variable, 2054), (sym_var_access, 2016), (sym__expression, 3268),
     (sym_fold_expression, 2088), (sym_pack_element, 2088), (sym__primary_expression, 2088),
     (sym_parenthesized_expression, 2089), (sym_boolean_operator, 2088), (sym_or_operator, 2093),
     (sym_xor_operator, 2093), (sym_and_operator, 2093), (sym_comparison_operator, 2088),
     (sym_eq_operator, 2102), (sym_ord_operator, 2102), (sym_add_operator, 2088),
     (sym_mult_operator, 2088), (sym_power_operator, 2088), (sym_unary_operator, 2088),
     (sym_unary, 61), (sym_constant_expr, 8028), (sym_variable_access, 2089), (sym_func_call, 2089),
     (sym_begin_path_expression, 2049), (sym_invocation, 2044), (sym_any_invocation, 2043),
     (sym_this_invocation, 2019), (sym_super_invocation, 2019), (sym_super_body_invocation, 2043),
     (sym_path_expression, 2002), (sym_field_expression, 2016), (sym_index_expression, 2016),
     (sym_index_value, 10436), (sym_identifier, 35),
     (aux_sym_ERR_unexpected_this_in_path_token1, 37),
     (aux_sym_ERR_unexpected_super_in_path_token1, 39), (sym_line_comment, 3),
     (anon_sym_LPAREN, 43), (sym_unsigned_int, 47), (sym__explicit_signed_int, 47),
     (sym_binary_int, 49), (sym_octal_int, 49), (sym_hex_int, 51), (sym__explicit_signed_real, 53),
     (sym_real_value, 53), (aux_sym_bool_literal_with_string_token1, 55),
     (aux_sym_bool_literal_with_string_token2, 57), (aux_sym_bool_literal_with_string_token3, 57),
     (sym_s_byte_char_str, 59), (sym_d_byte_char_str, 59), (aux_sym_time_token1, 61),
     (anon_sym_PLUS, 63), (anon_sym_DASH, 63), (aux_sym_ltime_token1, 65), (aux_sym_tod_token1, 67),
     (aux_sym_ltod_token1, 69), (aux_sym_short_date_token1, 71), (aux_sym_long_date_token1, 73),
     (aux_sym_short_date_and_time_token1, 75), (aux_sym_long_date_and_time_token1, 77),
     (aux_sym_sign_int_type_name_token1, 79), (aux_sym_sign_int_type_name_token2, 79),
     (aux_sym_sign_int_type_name_token3, 79), (aux_sym_sign_int_type_name_token4, 79),
     (aux_sym_unsign_int_type_name_token1, 81), (aux_sym_unsign_int_type_name_token2, 81),
     (aux_sym_unsign_int_type_name_token3, 81), (aux_sym_unsign_int_type_name_token4, 81),
     (aux_sym_real_type_name_token1, 83), (aux_sym_real_type_name_token2, 83),
     (aux_sym_string_name_token1, 85), (aux_sym_char_name_token1, 87),
     (aux_sym_multibits_type_name_token1, 89), (aux_sym_multibits_type_name_token2, 89),
     (aux_sym_multibits_type_name_token3, 89), (aux_sym_multibits_type_name_token4, 89),
     (anon_sym_PERCENT, 91), (aux_sym_ref_value_token1, 93), (aux_sym_ref_addr_token1, 95),
     (anon_sym_DOT_DOT_DOT, 97), (aux_sym_unary_token1, 63), (sym_c_style_comment, 3),
     (sym_pascal_style_comment, 3), (sym_pragma, 3), (sym__minus_before_base, 99),
     (sym__plus_before_base, 99)]"

lemma ts_parse_row_34_scan: "row_scan tokens_4_1 0 ts_parse_row_34 = Some (Suc (Suc (Suc (Suc (Suc (Suc 0))))))"
  unfolding ts_parse_row_34_def by simp

text \<open>Lines 57388 to 57513.\<close>

definition ts_parse_row_35 :: parse_row where
  "ts_parse_row_35 =
    [(sym_ERR_assign_in_condition, 9565), (sym_ERR_unexpected_this_in_path, 2018),
     (sym_ERR_unexpected_super_in_path, 2018), (sym_constant, 2089), (sym_numeric_literal, 2090),
     (sym_int_literal, 2092), (sym_int_kind, 9320), (sym_signed_int, 2111),
     (sym_real_literal, 2092), (sym_signed_real_value, 2105), (sym_bool_literal, 2090),
     (sym_bool_literal_with_string, 2114), (sym_bool_literal_with_numeric, 2114),
     (sym_char_literal, 2090), (sym_char_str, 2120), (sym_time_literal, 2090), (sym_duration, 2123),
     (sym_time, 2087), (sym_ltime, 2087), (sym_time_of_day, 2123), (sym_tod, 2091),
     (sym_ltod, 2091), (sym_date, 2123), (sym_short_date, 2066), (sym_long_date, 2066),
     (sym_date_and_time, 2123), (sym_short_date_and_time, 2067), (sym_long_date_and_time, 2067),
     (sym_int_type_name, 9449), (sym_sign_int_type_name, 2352), (sym_unsign_int_type_name, 2352),
     (sym_real_type_name, 9455), (sym_string_type_name, 9457), (sym_string_name, 2353),
     (sym_char_name, 2353), (sym_multibits_type_name, 9449), (sym_enum_value, 2089),
     (sym_direct_variable, 2060), (sym_ref_value, 2089), (sym_ref_addr, 2096),
     (sym_deref_expression, 2016), (sym_variable, 2054), (sym_var_access, 2016),
     (sym__expression, 3313), (sym_fold_expression, 2088), (sym_pack_element, 2088),
     (sym__primary_expression, 2088), (sym_parenthesized_expression, 2089),
     (sym_boolean_operator, 2088), (sym_or_operator, 2093), (sym_xor_operator, 2093),
     (sym_and_operator, 2093), (sym_comparison_operator, 2088), (sym_eq_operator, 2102),
     (sym_ord_operator, 2102), (sym_add_operator, 2088), (sym_mult_operator, 2088),
     (sym_power_operator, 2088), (sym_unary_operator, 2088), (sym_unary, 61),
     (sym_variable_access, 2089), (sym_func_call, 2089), (sym_begin_path_expression, 2049),
     (sym_invocation, 2044), (sym_any_invocation, 2043), (sym_this_invocation, 2019),
     (sym_super_invocation, 2019), (sym_super_body_invocation, 2043), (sym_path_expression, 2002),
     (sym_field_expression, 2016), (sym_index_expression, 2016), (sym_identifier, 35),
     (aux_sym_ERR_unexpected_this_in_path_token1, 37),
     (aux_sym_ERR_unexpected_super_in_path_token1, 39), (sym_line_comment, 3),
     (anon_sym_LPAREN, 43), (sym_unsigned_int, 47), (sym__explicit_signed_int, 47),
     (sym_binary_int, 49), (sym_octal_int, 49), (sym_hex_int, 51), (sym__explicit_signed_real, 53),
     (sym_real_value, 53), (aux_sym_bool_literal_with_string_token1, 55),
     (aux_sym_bool_literal_with_string_token2, 57), (aux_sym_bool_literal_with_string_token3, 57),
     (sym_s_byte_char_str, 59), (sym_d_byte_char_str, 59), (aux_sym_time_token1, 61),
     (anon_sym_PLUS, 63), (anon_sym_DASH, 63), (aux_sym_ltime_token1, 65), (aux_sym_tod_token1, 67),
     (aux_sym_ltod_token1, 69), (aux_sym_short_date_token1, 71), (aux_sym_long_date_token1, 73),
     (aux_sym_short_date_and_time_token1, 75), (aux_sym_long_date_and_time_token1, 77),
     (aux_sym_sign_int_type_name_token1, 79), (aux_sym_sign_int_type_name_token2, 79),
     (aux_sym_sign_int_type_name_token3, 79), (aux_sym_sign_int_type_name_token4, 79),
     (aux_sym_unsign_int_type_name_token1, 81), (aux_sym_unsign_int_type_name_token2, 81),
     (aux_sym_unsign_int_type_name_token3, 81), (aux_sym_unsign_int_type_name_token4, 81),
     (aux_sym_real_type_name_token1, 83), (aux_sym_real_type_name_token2, 83),
     (aux_sym_string_name_token1, 85), (aux_sym_char_name_token1, 87),
     (aux_sym_multibits_type_name_token1, 89), (aux_sym_multibits_type_name_token2, 89),
     (aux_sym_multibits_type_name_token3, 89), (aux_sym_multibits_type_name_token4, 89),
     (anon_sym_PERCENT, 91), (aux_sym_ref_value_token1, 93), (aux_sym_ref_addr_token1, 95),
     (anon_sym_DOT_DOT_DOT, 97), (aux_sym_unary_token1, 63), (sym_c_style_comment, 3),
     (sym_pascal_style_comment, 3), (sym_pragma, 3), (sym__minus_before_base, 99),
     (sym__plus_before_base, 99)]"

lemma ts_parse_row_35_scan: "row_scan tokens_4_1 0 ts_parse_row_35 = Some (Suc (Suc (Suc (Suc (Suc (Suc 0))))))"
  unfolding ts_parse_row_35_def by simp

text \<open>Lines 57514 to 57639.\<close>

definition ts_parse_row_36 :: parse_row where
  "ts_parse_row_36 =
    [(sym_ERR_unexpected_this_in_path, 2018), (sym_ERR_unexpected_super_in_path, 2018),
     (sym_constant, 2089), (sym_numeric_literal, 2090), (sym_int_literal, 2092),
     (sym_int_kind, 9320), (sym_signed_int, 2111), (sym_real_literal, 2092),
     (sym_signed_real_value, 2105), (sym_bool_literal, 2090), (sym_bool_literal_with_string, 2114),
     (sym_bool_literal_with_numeric, 2114), (sym_char_literal, 2090), (sym_char_str, 2120),
     (sym_time_literal, 2090), (sym_duration, 2123), (sym_time, 2087), (sym_ltime, 2087),
     (sym_time_of_day, 2123), (sym_tod, 2091), (sym_ltod, 2091), (sym_date, 2123),
     (sym_short_date, 2066), (sym_long_date, 2066), (sym_date_and_time, 2123),
     (sym_short_date_and_time, 2067), (sym_long_date_and_time, 2067), (sym_int_type_name, 9449),
     (sym_sign_int_type_name, 2352), (sym_unsign_int_type_name, 2352), (sym_real_type_name, 9455),
     (sym_string_type_name, 9457), (sym_string_name, 2353), (sym_char_name, 2353),
     (sym_multibits_type_name, 9449), (sym_enum_value, 2089), (sym_direct_variable, 2060),
     (sym_ref_value, 2089), (sym_ref_addr, 2096), (sym_deref_expression, 2016),
     (sym_variable, 2054), (sym_var_access, 2016), (sym__expression, 3268),
     (sym_fold_expression, 2088), (sym_pack_element, 2088), (sym__primary_expression, 2088),
     (sym_parenthesized_expression, 2089), (sym_boolean_operator, 2088), (sym_or_operator, 2093),
     (sym_xor_operator, 2093), (sym_and_operator, 2093), (sym_comparison_operator, 2088),
     (sym_eq_operator, 2102), (sym_ord_operator, 2102), (sym_add_operator, 2088),
     (sym_mult_operator, 2088), (sym_power_operator, 2088), (sym_unary_operator, 2088),
     (sym_unary, 61), (sym_constant_expr, 8108), (sym_variable_access, 2089), (sym_func_call, 2089),
     (sym_begin_path_expression, 2049), (sym_invocation, 2044), (sym_any_invocation, 2043),
     (sym_this_invocation, 2019), (sym_super_invocation, 2019), (sym_super_body_invocation, 2043),
     (sym_path_expression, 2002), (sym_field_expression, 2016), (sym_index_expression, 2016),
     (sym_identifier, 35), (aux_sym_ERR_unexpected_this_in_path_token1, 37),
     (aux_sym_ERR_unexpected_super_in_path_token1, 39), (sym_line_comment, 3),
     (anon_sym_LPAREN, 43), (sym_unsigned_int, 47), (sym__explicit_signed_int, 47),
     (sym_binary_int, 49), (sym_octal_int, 49), (sym_hex_int, 51), (sym__explicit_signed_real, 53),
     (sym_real_value, 53), (aux_sym_bool_literal_with_string_token1, 55),
     (aux_sym_bool_literal_with_string_token2, 57), (aux_sym_bool_literal_with_string_token3, 57),
     (sym_s_byte_char_str, 59), (sym_d_byte_char_str, 59), (aux_sym_time_token1, 61),
     (anon_sym_PLUS, 63), (anon_sym_DASH, 63), (aux_sym_ltime_token1, 65), (aux_sym_tod_token1, 67),
     (aux_sym_ltod_token1, 69), (aux_sym_short_date_token1, 71), (aux_sym_long_date_token1, 73),
     (aux_sym_short_date_and_time_token1, 75), (aux_sym_long_date_and_time_token1, 77),
     (aux_sym_sign_int_type_name_token1, 79), (aux_sym_sign_int_type_name_token2, 79),
     (aux_sym_sign_int_type_name_token3, 79), (aux_sym_sign_int_type_name_token4, 79),
     (aux_sym_unsign_int_type_name_token1, 81), (aux_sym_unsign_int_type_name_token2, 81),
     (aux_sym_unsign_int_type_name_token3, 81), (aux_sym_unsign_int_type_name_token4, 81),
     (aux_sym_real_type_name_token1, 83), (aux_sym_real_type_name_token2, 83),
     (aux_sym_string_name_token1, 85), (aux_sym_char_name_token1, 87),
     (aux_sym_multibits_type_name_token1, 89), (aux_sym_multibits_type_name_token2, 89),
     (aux_sym_multibits_type_name_token3, 89), (aux_sym_multibits_type_name_token4, 89),
     (anon_sym_PERCENT, 91), (aux_sym_ref_value_token1, 93), (aux_sym_ref_addr_token1, 95),
     (anon_sym_DOT_DOT_DOT, 97), (aux_sym_unary_token1, 63), (sym_c_style_comment, 3),
     (sym_pascal_style_comment, 3), (sym_pragma, 3), (sym__minus_before_base, 99),
     (sym__plus_before_base, 99)]"

lemma ts_parse_row_36_scan: "row_scan tokens_4_1 0 ts_parse_row_36 = Some (Suc (Suc (Suc (Suc (Suc (Suc 0))))))"
  unfolding ts_parse_row_36_def by simp

text \<open>Lines 57640 to 57765.\<close>

definition ts_parse_row_37 :: parse_row where
  "ts_parse_row_37 =
    [(sym_ERR_assign_in_condition, 10454), (sym_ERR_unexpected_this_in_path, 2018),
     (sym_ERR_unexpected_super_in_path, 2018), (sym_constant, 2089), (sym_numeric_literal, 2090),
     (sym_int_literal, 2092), (sym_int_kind, 9320), (sym_signed_int, 2111),
     (sym_real_literal, 2092), (sym_signed_real_value, 2105), (sym_bool_literal, 2090),
     (sym_bool_literal_with_string, 2114), (sym_bool_literal_with_numeric, 2114),
     (sym_char_literal, 2090), (sym_char_str, 2120), (sym_time_literal, 2090), (sym_duration, 2123),
     (sym_time, 2087), (sym_ltime, 2087), (sym_time_of_day, 2123), (sym_tod, 2091),
     (sym_ltod, 2091), (sym_date, 2123), (sym_short_date, 2066), (sym_long_date, 2066),
     (sym_date_and_time, 2123), (sym_short_date_and_time, 2067), (sym_long_date_and_time, 2067),
     (sym_int_type_name, 9449), (sym_sign_int_type_name, 2352), (sym_unsign_int_type_name, 2352),
     (sym_real_type_name, 9455), (sym_string_type_name, 9457), (sym_string_name, 2353),
     (sym_char_name, 2353), (sym_multibits_type_name, 9449), (sym_enum_value, 2089),
     (sym_direct_variable, 2060), (sym_ref_value, 2089), (sym_ref_addr, 2096),
     (sym_deref_expression, 2016), (sym_variable, 2054), (sym_var_access, 2016),
     (sym__expression, 3321), (sym_fold_expression, 2088), (sym_pack_element, 2088),
     (sym__primary_expression, 2088), (sym_parenthesized_expression, 2089),
     (sym_boolean_operator, 2088), (sym_or_operator, 2093), (sym_xor_operator, 2093),
     (sym_and_operator, 2093), (sym_comparison_operator, 2088), (sym_eq_operator, 2102),
     (sym_ord_operator, 2102), (sym_add_operator, 2088), (sym_mult_operator, 2088),
     (sym_power_operator, 2088), (sym_unary_operator, 2088), (sym_unary, 61),
     (sym_variable_access, 2089), (sym_func_call, 2089), (sym_begin_path_expression, 2049),
     (sym_invocation, 2044), (sym_any_invocation, 2043), (sym_this_invocation, 2019),
     (sym_super_invocation, 2019), (sym_super_body_invocation, 2043), (sym_path_expression, 2002),
     (sym_field_expression, 2016), (sym_index_expression, 2016), (sym_identifier, 35),
     (aux_sym_ERR_unexpected_this_in_path_token1, 37),
     (aux_sym_ERR_unexpected_super_in_path_token1, 39), (sym_line_comment, 3),
     (anon_sym_LPAREN, 43), (sym_unsigned_int, 47), (sym__explicit_signed_int, 47),
     (sym_binary_int, 49), (sym_octal_int, 49), (sym_hex_int, 51), (sym__explicit_signed_real, 53),
     (sym_real_value, 53), (aux_sym_bool_literal_with_string_token1, 55),
     (aux_sym_bool_literal_with_string_token2, 57), (aux_sym_bool_literal_with_string_token3, 57),
     (sym_s_byte_char_str, 59), (sym_d_byte_char_str, 59), (aux_sym_time_token1, 61),
     (anon_sym_PLUS, 63), (anon_sym_DASH, 63), (aux_sym_ltime_token1, 65), (aux_sym_tod_token1, 67),
     (aux_sym_ltod_token1, 69), (aux_sym_short_date_token1, 71), (aux_sym_long_date_token1, 73),
     (aux_sym_short_date_and_time_token1, 75), (aux_sym_long_date_and_time_token1, 77),
     (aux_sym_sign_int_type_name_token1, 79), (aux_sym_sign_int_type_name_token2, 79),
     (aux_sym_sign_int_type_name_token3, 79), (aux_sym_sign_int_type_name_token4, 79),
     (aux_sym_unsign_int_type_name_token1, 81), (aux_sym_unsign_int_type_name_token2, 81),
     (aux_sym_unsign_int_type_name_token3, 81), (aux_sym_unsign_int_type_name_token4, 81),
     (aux_sym_real_type_name_token1, 83), (aux_sym_real_type_name_token2, 83),
     (aux_sym_string_name_token1, 85), (aux_sym_char_name_token1, 87),
     (aux_sym_multibits_type_name_token1, 89), (aux_sym_multibits_type_name_token2, 89),
     (aux_sym_multibits_type_name_token3, 89), (aux_sym_multibits_type_name_token4, 89),
     (anon_sym_PERCENT, 91), (aux_sym_ref_value_token1, 93), (aux_sym_ref_addr_token1, 95),
     (anon_sym_DOT_DOT_DOT, 97), (aux_sym_unary_token1, 63), (sym_c_style_comment, 3),
     (sym_pascal_style_comment, 3), (sym_pragma, 3), (sym__minus_before_base, 99),
     (sym__plus_before_base, 99)]"

lemma ts_parse_row_37_scan: "row_scan tokens_4_1 0 ts_parse_row_37 = Some (Suc (Suc (Suc (Suc (Suc (Suc 0))))))"
  unfolding ts_parse_row_37_def by simp

text \<open>Lines 57766 to 57891.\<close>

definition ts_parse_row_38 :: parse_row where
  "ts_parse_row_38 =
    [(sym_ERR_unexpected_this_in_path, 2018), (sym_ERR_unexpected_super_in_path, 2018),
     (sym_constant, 2089), (sym_numeric_literal, 2090), (sym_int_literal, 2092),
     (sym_int_kind, 9320), (sym_signed_int, 2111), (sym_real_literal, 2092),
     (sym_signed_real_value, 2105), (sym_bool_literal, 2090), (sym_bool_literal_with_string, 2114),
     (sym_bool_literal_with_numeric, 2114), (sym_char_literal, 2090), (sym_char_str, 2120),
     (sym_time_literal, 2090), (sym_duration, 2123), (sym_time, 2087), (sym_ltime, 2087),
     (sym_time_of_day, 2123), (sym_tod, 2091), (sym_ltod, 2091), (sym_date, 2123),
     (sym_short_date, 2066), (sym_long_date, 2066), (sym_date_and_time, 2123),
     (sym_short_date_and_time, 2067), (sym_long_date_and_time, 2067), (sym_int_type_name, 9449),
     (sym_sign_int_type_name, 2352), (sym_unsign_int_type_name, 2352), (sym_real_type_name, 9455),
     (sym_string_type_name, 9457), (sym_string_name, 2353), (sym_char_name, 2353),
     (sym_multibits_type_name, 9449), (sym_enum_value, 2089), (sym_direct_variable, 2060),
     (sym_ref_value, 2089), (sym_ref_addr, 2096), (sym_deref_expression, 2016),
     (sym_variable, 2054), (sym_var_access, 2016), (sym__expression, 3268),
     (sym_fold_expression, 2088), (sym_pack_element, 2088), (sym__primary_expression, 2088),
     (sym_parenthesized_expression, 2089), (sym_boolean_operator, 2088), (sym_or_operator, 2093),
     (sym_xor_operator, 2093), (sym_and_operator, 2093), (sym_comparison_operator, 2088),
     (sym_eq_operator, 2102), (sym_ord_operator, 2102), (sym_add_operator, 2088),
     (sym_mult_operator, 2088), (sym_power_operator, 2088), (sym_unary_operator, 2088),
     (sym_unary, 61), (sym_constant_expr, 7831), (sym_variable_access, 2089), (sym_func_call, 2089),
     (sym_begin_path_expression, 2049), (sym_invocation, 2044), (sym_any_invocation, 2043),
     (sym_this_invocation, 2019), (sym_super_invocation, 2019), (sym_super_body_invocation, 2043),
     (sym_path_expression, 2002), (sym_field_expression, 2016), (sym_index_expression, 2016),
     (sym_identifier, 35), (aux_sym_ERR_unexpected_this_in_path_token1, 37),
     (aux_sym_ERR_unexpected_super_in_path_token1, 39), (sym_line_comment, 3),
     (anon_sym_LPAREN, 43), (sym_unsigned_int, 47), (sym__explicit_signed_int, 47),
     (sym_binary_int, 49), (sym_octal_int, 49), (sym_hex_int, 51), (sym__explicit_signed_real, 53),
     (sym_real_value, 53), (aux_sym_bool_literal_with_string_token1, 55),
     (aux_sym_bool_literal_with_string_token2, 57), (aux_sym_bool_literal_with_string_token3, 57),
     (sym_s_byte_char_str, 59), (sym_d_byte_char_str, 59), (aux_sym_time_token1, 61),
     (anon_sym_PLUS, 63), (anon_sym_DASH, 63), (aux_sym_ltime_token1, 65), (aux_sym_tod_token1, 67),
     (aux_sym_ltod_token1, 69), (aux_sym_short_date_token1, 71), (aux_sym_long_date_token1, 73),
     (aux_sym_short_date_and_time_token1, 75), (aux_sym_long_date_and_time_token1, 77),
     (aux_sym_sign_int_type_name_token1, 79), (aux_sym_sign_int_type_name_token2, 79),
     (aux_sym_sign_int_type_name_token3, 79), (aux_sym_sign_int_type_name_token4, 79),
     (aux_sym_unsign_int_type_name_token1, 81), (aux_sym_unsign_int_type_name_token2, 81),
     (aux_sym_unsign_int_type_name_token3, 81), (aux_sym_unsign_int_type_name_token4, 81),
     (aux_sym_real_type_name_token1, 83), (aux_sym_real_type_name_token2, 83),
     (aux_sym_string_name_token1, 85), (aux_sym_char_name_token1, 87),
     (aux_sym_multibits_type_name_token1, 89), (aux_sym_multibits_type_name_token2, 89),
     (aux_sym_multibits_type_name_token3, 89), (aux_sym_multibits_type_name_token4, 89),
     (anon_sym_PERCENT, 91), (aux_sym_ref_value_token1, 93), (aux_sym_ref_addr_token1, 95),
     (anon_sym_DOT_DOT_DOT, 97), (aux_sym_unary_token1, 63), (sym_c_style_comment, 3),
     (sym_pascal_style_comment, 3), (sym_pragma, 3), (sym__minus_before_base, 99),
     (sym__plus_before_base, 99)]"

lemma ts_parse_row_38_scan: "row_scan tokens_4_1 0 ts_parse_row_38 = Some (Suc (Suc (Suc (Suc (Suc (Suc 0))))))"
  unfolding ts_parse_row_38_def by simp

text \<open>Lines 57892 to 58017.\<close>

definition ts_parse_row_39 :: parse_row where
  "ts_parse_row_39 =
    [(sym_ERR_assign_in_condition, 10544), (sym_ERR_unexpected_this_in_path, 2018),
     (sym_ERR_unexpected_super_in_path, 2018), (sym_constant, 2089), (sym_numeric_literal, 2090),
     (sym_int_literal, 2092), (sym_int_kind, 9320), (sym_signed_int, 2111),
     (sym_real_literal, 2092), (sym_signed_real_value, 2105), (sym_bool_literal, 2090),
     (sym_bool_literal_with_string, 2114), (sym_bool_literal_with_numeric, 2114),
     (sym_char_literal, 2090), (sym_char_str, 2120), (sym_time_literal, 2090), (sym_duration, 2123),
     (sym_time, 2087), (sym_ltime, 2087), (sym_time_of_day, 2123), (sym_tod, 2091),
     (sym_ltod, 2091), (sym_date, 2123), (sym_short_date, 2066), (sym_long_date, 2066),
     (sym_date_and_time, 2123), (sym_short_date_and_time, 2067), (sym_long_date_and_time, 2067),
     (sym_int_type_name, 9449), (sym_sign_int_type_name, 2352), (sym_unsign_int_type_name, 2352),
     (sym_real_type_name, 9455), (sym_string_type_name, 9457), (sym_string_name, 2353),
     (sym_char_name, 2353), (sym_multibits_type_name, 9449), (sym_enum_value, 2089),
     (sym_direct_variable, 2060), (sym_ref_value, 2089), (sym_ref_addr, 2096),
     (sym_deref_expression, 2016), (sym_variable, 2054), (sym_var_access, 2016),
     (sym__expression, 3326), (sym_fold_expression, 2088), (sym_pack_element, 2088),
     (sym__primary_expression, 2088), (sym_parenthesized_expression, 2089),
     (sym_boolean_operator, 2088), (sym_or_operator, 2093), (sym_xor_operator, 2093),
     (sym_and_operator, 2093), (sym_comparison_operator, 2088), (sym_eq_operator, 2102),
     (sym_ord_operator, 2102), (sym_add_operator, 2088), (sym_mult_operator, 2088),
     (sym_power_operator, 2088), (sym_unary_operator, 2088), (sym_unary, 61),
     (sym_variable_access, 2089), (sym_func_call, 2089), (sym_begin_path_expression, 2049),
     (sym_invocation, 2044), (sym_any_invocation, 2043), (sym_this_invocation, 2019),
     (sym_super_invocation, 2019), (sym_super_body_invocation, 2043), (sym_path_expression, 2002),
     (sym_field_expression, 2016), (sym_index_expression, 2016), (sym_identifier, 35),
     (aux_sym_ERR_unexpected_this_in_path_token1, 37),
     (aux_sym_ERR_unexpected_super_in_path_token1, 39), (sym_line_comment, 3),
     (anon_sym_LPAREN, 43), (sym_unsigned_int, 47), (sym__explicit_signed_int, 47),
     (sym_binary_int, 49), (sym_octal_int, 49), (sym_hex_int, 51), (sym__explicit_signed_real, 53),
     (sym_real_value, 53), (aux_sym_bool_literal_with_string_token1, 55),
     (aux_sym_bool_literal_with_string_token2, 57), (aux_sym_bool_literal_with_string_token3, 57),
     (sym_s_byte_char_str, 59), (sym_d_byte_char_str, 59), (aux_sym_time_token1, 61),
     (anon_sym_PLUS, 63), (anon_sym_DASH, 63), (aux_sym_ltime_token1, 65), (aux_sym_tod_token1, 67),
     (aux_sym_ltod_token1, 69), (aux_sym_short_date_token1, 71), (aux_sym_long_date_token1, 73),
     (aux_sym_short_date_and_time_token1, 75), (aux_sym_long_date_and_time_token1, 77),
     (aux_sym_sign_int_type_name_token1, 79), (aux_sym_sign_int_type_name_token2, 79),
     (aux_sym_sign_int_type_name_token3, 79), (aux_sym_sign_int_type_name_token4, 79),
     (aux_sym_unsign_int_type_name_token1, 81), (aux_sym_unsign_int_type_name_token2, 81),
     (aux_sym_unsign_int_type_name_token3, 81), (aux_sym_unsign_int_type_name_token4, 81),
     (aux_sym_real_type_name_token1, 83), (aux_sym_real_type_name_token2, 83),
     (aux_sym_string_name_token1, 85), (aux_sym_char_name_token1, 87),
     (aux_sym_multibits_type_name_token1, 89), (aux_sym_multibits_type_name_token2, 89),
     (aux_sym_multibits_type_name_token3, 89), (aux_sym_multibits_type_name_token4, 89),
     (anon_sym_PERCENT, 91), (aux_sym_ref_value_token1, 93), (aux_sym_ref_addr_token1, 95),
     (anon_sym_DOT_DOT_DOT, 97), (aux_sym_unary_token1, 63), (sym_c_style_comment, 3),
     (sym_pascal_style_comment, 3), (sym_pragma, 3), (sym__minus_before_base, 99),
     (sym__plus_before_base, 99)]"

lemma ts_parse_row_39_scan: "row_scan tokens_4_1 0 ts_parse_row_39 = Some (Suc (Suc (Suc (Suc (Suc (Suc 0))))))"
  unfolding ts_parse_row_39_def by simp

text \<open>Lines 58018 to 58143.\<close>

definition ts_parse_row_40 :: parse_row where
  "ts_parse_row_40 =
    [(sym_ERR_unexpected_this_in_path, 2018), (sym_ERR_unexpected_super_in_path, 2018),
     (sym_constant, 2089), (sym_numeric_literal, 2090), (sym_int_literal, 2092),
     (sym_int_kind, 9320), (sym_signed_int, 2111), (sym_real_literal, 2092),
     (sym_signed_real_value, 2105), (sym_bool_literal, 2090), (sym_bool_literal_with_string, 2114),
     (sym_bool_literal_with_numeric, 2114), (sym_char_literal, 2090), (sym_char_str, 2120),
     (sym_time_literal, 2090), (sym_duration, 2123), (sym_time, 2087), (sym_ltime, 2087),
     (sym_time_of_day, 2123), (sym_tod, 2091), (sym_ltod, 2091), (sym_date, 2123),
     (sym_short_date, 2066), (sym_long_date, 2066), (sym_date_and_time, 2123),
     (sym_short_date_and_time, 2067), (sym_long_date_and_time, 2067), (sym_int_type_name, 9449),
     (sym_sign_int_type_name, 2352), (sym_unsign_int_type_name, 2352), (sym_real_type_name, 9455),
     (sym_string_type_name, 9457), (sym_string_name, 2353), (sym_char_name, 2353),
     (sym_multibits_type_name, 9449), (sym_enum_value, 2089), (sym_direct_variable, 2060),
     (sym_ref_value, 2089), (sym_ref_addr, 2096), (sym_deref_expression, 2016),
     (sym_variable, 2054), (sym_var_access, 2016), (sym__expression, 3268),
     (sym_fold_expression, 2088), (sym_pack_element, 2088), (sym__primary_expression, 2088),
     (sym_parenthesized_expression, 2089), (sym_boolean_operator, 2088), (sym_or_operator, 2093),
     (sym_xor_operator, 2093), (sym_and_operator, 2093), (sym_comparison_operator, 2088),
     (sym_eq_operator, 2102), (sym_ord_operator, 2102), (sym_add_operator, 2088),
     (sym_mult_operator, 2088), (sym_power_operator, 2088), (sym_unary_operator, 2088),
     (sym_unary, 61), (sym_constant_expr, 8841), (sym_variable_access, 2089), (sym_func_call, 2089),
     (sym_begin_path_expression, 2049), (sym_invocation, 2044), (sym_any_invocation, 2043),
     (sym_this_invocation, 2019), (sym_super_invocation, 2019), (sym_super_body_invocation, 2043),
     (sym_path_expression, 2002), (sym_field_expression, 2016), (sym_index_expression, 2016),
     (sym_identifier, 35), (aux_sym_ERR_unexpected_this_in_path_token1, 37),
     (aux_sym_ERR_unexpected_super_in_path_token1, 39), (sym_line_comment, 3),
     (anon_sym_LPAREN, 43), (sym_unsigned_int, 47), (sym__explicit_signed_int, 47),
     (sym_binary_int, 49), (sym_octal_int, 49), (sym_hex_int, 51), (sym__explicit_signed_real, 53),
     (sym_real_value, 53), (aux_sym_bool_literal_with_string_token1, 55),
     (aux_sym_bool_literal_with_string_token2, 57), (aux_sym_bool_literal_with_string_token3, 57),
     (sym_s_byte_char_str, 59), (sym_d_byte_char_str, 59), (aux_sym_time_token1, 61),
     (anon_sym_PLUS, 63), (anon_sym_DASH, 63), (aux_sym_ltime_token1, 65), (aux_sym_tod_token1, 67),
     (aux_sym_ltod_token1, 69), (aux_sym_short_date_token1, 71), (aux_sym_long_date_token1, 73),
     (aux_sym_short_date_and_time_token1, 75), (aux_sym_long_date_and_time_token1, 77),
     (aux_sym_sign_int_type_name_token1, 79), (aux_sym_sign_int_type_name_token2, 79),
     (aux_sym_sign_int_type_name_token3, 79), (aux_sym_sign_int_type_name_token4, 79),
     (aux_sym_unsign_int_type_name_token1, 81), (aux_sym_unsign_int_type_name_token2, 81),
     (aux_sym_unsign_int_type_name_token3, 81), (aux_sym_unsign_int_type_name_token4, 81),
     (aux_sym_real_type_name_token1, 83), (aux_sym_real_type_name_token2, 83),
     (aux_sym_string_name_token1, 85), (aux_sym_char_name_token1, 87),
     (aux_sym_multibits_type_name_token1, 89), (aux_sym_multibits_type_name_token2, 89),
     (aux_sym_multibits_type_name_token3, 89), (aux_sym_multibits_type_name_token4, 89),
     (anon_sym_PERCENT, 91), (aux_sym_ref_value_token1, 93), (aux_sym_ref_addr_token1, 95),
     (anon_sym_DOT_DOT_DOT, 97), (aux_sym_unary_token1, 63), (sym_c_style_comment, 3),
     (sym_pascal_style_comment, 3), (sym_pragma, 3), (sym__minus_before_base, 99),
     (sym__plus_before_base, 99)]"

lemma ts_parse_row_40_scan: "row_scan tokens_4_1 0 ts_parse_row_40 = Some (Suc (Suc (Suc (Suc (Suc (Suc 0))))))"
  unfolding ts_parse_row_40_def by simp

text \<open>Lines 58144 to 58269.\<close>

definition ts_parse_row_41 :: parse_row where
  "ts_parse_row_41 =
    [(sym_ERR_assign_in_condition, 9820), (sym_ERR_unexpected_this_in_path, 2018),
     (sym_ERR_unexpected_super_in_path, 2018), (sym_constant, 2089), (sym_numeric_literal, 2090),
     (sym_int_literal, 2092), (sym_int_kind, 9320), (sym_signed_int, 2111),
     (sym_real_literal, 2092), (sym_signed_real_value, 2105), (sym_bool_literal, 2090),
     (sym_bool_literal_with_string, 2114), (sym_bool_literal_with_numeric, 2114),
     (sym_char_literal, 2090), (sym_char_str, 2120), (sym_time_literal, 2090), (sym_duration, 2123),
     (sym_time, 2087), (sym_ltime, 2087), (sym_time_of_day, 2123), (sym_tod, 2091),
     (sym_ltod, 2091), (sym_date, 2123), (sym_short_date, 2066), (sym_long_date, 2066),
     (sym_date_and_time, 2123), (sym_short_date_and_time, 2067), (sym_long_date_and_time, 2067),
     (sym_int_type_name, 9449), (sym_sign_int_type_name, 2352), (sym_unsign_int_type_name, 2352),
     (sym_real_type_name, 9455), (sym_string_type_name, 9457), (sym_string_name, 2353),
     (sym_char_name, 2353), (sym_multibits_type_name, 9449), (sym_enum_value, 2089),
     (sym_direct_variable, 2060), (sym_ref_value, 2089), (sym_ref_addr, 2096),
     (sym_deref_expression, 2016), (sym_variable, 2054), (sym_var_access, 2016),
     (sym__expression, 3311), (sym_fold_expression, 2088), (sym_pack_element, 2088),
     (sym__primary_expression, 2088), (sym_parenthesized_expression, 2089),
     (sym_boolean_operator, 2088), (sym_or_operator, 2093), (sym_xor_operator, 2093),
     (sym_and_operator, 2093), (sym_comparison_operator, 2088), (sym_eq_operator, 2102),
     (sym_ord_operator, 2102), (sym_add_operator, 2088), (sym_mult_operator, 2088),
     (sym_power_operator, 2088), (sym_unary_operator, 2088), (sym_unary, 61),
     (sym_variable_access, 2089), (sym_func_call, 2089), (sym_begin_path_expression, 2049),
     (sym_invocation, 2044), (sym_any_invocation, 2043), (sym_this_invocation, 2019),
     (sym_super_invocation, 2019), (sym_super_body_invocation, 2043), (sym_path_expression, 2002),
     (sym_field_expression, 2016), (sym_index_expression, 2016), (sym_identifier, 35),
     (aux_sym_ERR_unexpected_this_in_path_token1, 37),
     (aux_sym_ERR_unexpected_super_in_path_token1, 39), (sym_line_comment, 3),
     (anon_sym_LPAREN, 43), (sym_unsigned_int, 47), (sym__explicit_signed_int, 47),
     (sym_binary_int, 49), (sym_octal_int, 49), (sym_hex_int, 51), (sym__explicit_signed_real, 53),
     (sym_real_value, 53), (aux_sym_bool_literal_with_string_token1, 55),
     (aux_sym_bool_literal_with_string_token2, 57), (aux_sym_bool_literal_with_string_token3, 57),
     (sym_s_byte_char_str, 59), (sym_d_byte_char_str, 59), (aux_sym_time_token1, 61),
     (anon_sym_PLUS, 63), (anon_sym_DASH, 63), (aux_sym_ltime_token1, 65), (aux_sym_tod_token1, 67),
     (aux_sym_ltod_token1, 69), (aux_sym_short_date_token1, 71), (aux_sym_long_date_token1, 73),
     (aux_sym_short_date_and_time_token1, 75), (aux_sym_long_date_and_time_token1, 77),
     (aux_sym_sign_int_type_name_token1, 79), (aux_sym_sign_int_type_name_token2, 79),
     (aux_sym_sign_int_type_name_token3, 79), (aux_sym_sign_int_type_name_token4, 79),
     (aux_sym_unsign_int_type_name_token1, 81), (aux_sym_unsign_int_type_name_token2, 81),
     (aux_sym_unsign_int_type_name_token3, 81), (aux_sym_unsign_int_type_name_token4, 81),
     (aux_sym_real_type_name_token1, 83), (aux_sym_real_type_name_token2, 83),
     (aux_sym_string_name_token1, 85), (aux_sym_char_name_token1, 87),
     (aux_sym_multibits_type_name_token1, 89), (aux_sym_multibits_type_name_token2, 89),
     (aux_sym_multibits_type_name_token3, 89), (aux_sym_multibits_type_name_token4, 89),
     (anon_sym_PERCENT, 91), (aux_sym_ref_value_token1, 93), (aux_sym_ref_addr_token1, 95),
     (anon_sym_DOT_DOT_DOT, 97), (aux_sym_unary_token1, 63), (sym_c_style_comment, 3),
     (sym_pascal_style_comment, 3), (sym_pragma, 3), (sym__minus_before_base, 99),
     (sym__plus_before_base, 99)]"

lemma ts_parse_row_41_scan: "row_scan tokens_4_1 0 ts_parse_row_41 = Some (Suc (Suc (Suc (Suc (Suc (Suc 0))))))"
  unfolding ts_parse_row_41_def by simp

text \<open>Lines 58270 to 58395.\<close>

definition ts_parse_row_42 :: parse_row where
  "ts_parse_row_42 =
    [(sym_ERR_assign_in_condition, 8942), (sym_ERR_unexpected_this_in_path, 2018),
     (sym_ERR_unexpected_super_in_path, 2018), (sym_constant, 2089), (sym_numeric_literal, 2090),
     (sym_int_literal, 2092), (sym_int_kind, 9320), (sym_signed_int, 2111),
     (sym_real_literal, 2092), (sym_signed_real_value, 2105), (sym_bool_literal, 2090),
     (sym_bool_literal_with_string, 2114), (sym_bool_literal_with_numeric, 2114),
     (sym_char_literal, 2090), (sym_char_str, 2120), (sym_time_literal, 2090), (sym_duration, 2123),
     (sym_time, 2087), (sym_ltime, 2087), (sym_time_of_day, 2123), (sym_tod, 2091),
     (sym_ltod, 2091), (sym_date, 2123), (sym_short_date, 2066), (sym_long_date, 2066),
     (sym_date_and_time, 2123), (sym_short_date_and_time, 2067), (sym_long_date_and_time, 2067),
     (sym_int_type_name, 9449), (sym_sign_int_type_name, 2352), (sym_unsign_int_type_name, 2352),
     (sym_real_type_name, 9455), (sym_string_type_name, 9457), (sym_string_name, 2353),
     (sym_char_name, 2353), (sym_multibits_type_name, 9449), (sym_enum_value, 2089),
     (sym_direct_variable, 2060), (sym_ref_value, 2089), (sym_ref_addr, 2096),
     (sym_deref_expression, 2016), (sym_variable, 2054), (sym_var_access, 2016),
     (sym__expression, 3323), (sym_fold_expression, 2088), (sym_pack_element, 2088),
     (sym__primary_expression, 2088), (sym_parenthesized_expression, 2089),
     (sym_boolean_operator, 2088), (sym_or_operator, 2093), (sym_xor_operator, 2093),
     (sym_and_operator, 2093), (sym_comparison_operator, 2088), (sym_eq_operator, 2102),
     (sym_ord_operator, 2102), (sym_add_operator, 2088), (sym_mult_operator, 2088),
     (sym_power_operator, 2088), (sym_unary_operator, 2088), (sym_unary, 61),
     (sym_variable_access, 2089), (sym_func_call, 2089), (sym_begin_path_expression, 2049),
     (sym_invocation, 2044), (sym_any_invocation, 2043), (sym_this_invocation, 2019),
     (sym_super_invocation, 2019), (sym_super_body_invocation, 2043), (sym_path_expression, 2002),
     (sym_field_expression, 2016), (sym_index_expression, 2016), (sym_identifier, 35),
     (aux_sym_ERR_unexpected_this_in_path_token1, 37),
     (aux_sym_ERR_unexpected_super_in_path_token1, 39), (sym_line_comment, 3),
     (anon_sym_LPAREN, 43), (sym_unsigned_int, 47), (sym__explicit_signed_int, 47),
     (sym_binary_int, 49), (sym_octal_int, 49), (sym_hex_int, 51), (sym__explicit_signed_real, 53),
     (sym_real_value, 53), (aux_sym_bool_literal_with_string_token1, 55),
     (aux_sym_bool_literal_with_string_token2, 57), (aux_sym_bool_literal_with_string_token3, 57),
     (sym_s_byte_char_str, 59), (sym_d_byte_char_str, 59), (aux_sym_time_token1, 61),
     (anon_sym_PLUS, 63), (anon_sym_DASH, 63), (aux_sym_ltime_token1, 65), (aux_sym_tod_token1, 67),
     (aux_sym_ltod_token1, 69), (aux_sym_short_date_token1, 71), (aux_sym_long_date_token1, 73),
     (aux_sym_short_date_and_time_token1, 75), (aux_sym_long_date_and_time_token1, 77),
     (aux_sym_sign_int_type_name_token1, 79), (aux_sym_sign_int_type_name_token2, 79),
     (aux_sym_sign_int_type_name_token3, 79), (aux_sym_sign_int_type_name_token4, 79),
     (aux_sym_unsign_int_type_name_token1, 81), (aux_sym_unsign_int_type_name_token2, 81),
     (aux_sym_unsign_int_type_name_token3, 81), (aux_sym_unsign_int_type_name_token4, 81),
     (aux_sym_real_type_name_token1, 83), (aux_sym_real_type_name_token2, 83),
     (aux_sym_string_name_token1, 85), (aux_sym_char_name_token1, 87),
     (aux_sym_multibits_type_name_token1, 89), (aux_sym_multibits_type_name_token2, 89),
     (aux_sym_multibits_type_name_token3, 89), (aux_sym_multibits_type_name_token4, 89),
     (anon_sym_PERCENT, 91), (aux_sym_ref_value_token1, 93), (aux_sym_ref_addr_token1, 95),
     (anon_sym_DOT_DOT_DOT, 97), (aux_sym_unary_token1, 63), (sym_c_style_comment, 3),
     (sym_pascal_style_comment, 3), (sym_pragma, 3), (sym__minus_before_base, 99),
     (sym__plus_before_base, 99)]"

lemma ts_parse_row_42_scan: "row_scan tokens_4_1 0 ts_parse_row_42 = Some (Suc (Suc (Suc (Suc (Suc (Suc 0))))))"
  unfolding ts_parse_row_42_def by simp

text \<open>Lines 58396 to 58521.\<close>

definition ts_parse_row_43 :: parse_row where
  "ts_parse_row_43 =
    [(sym_ERR_assign_in_condition, 10123), (sym_ERR_unexpected_this_in_path, 2018),
     (sym_ERR_unexpected_super_in_path, 2018), (sym_constant, 2089), (sym_numeric_literal, 2090),
     (sym_int_literal, 2092), (sym_int_kind, 9320), (sym_signed_int, 2111),
     (sym_real_literal, 2092), (sym_signed_real_value, 2105), (sym_bool_literal, 2090),
     (sym_bool_literal_with_string, 2114), (sym_bool_literal_with_numeric, 2114),
     (sym_char_literal, 2090), (sym_char_str, 2120), (sym_time_literal, 2090), (sym_duration, 2123),
     (sym_time, 2087), (sym_ltime, 2087), (sym_time_of_day, 2123), (sym_tod, 2091),
     (sym_ltod, 2091), (sym_date, 2123), (sym_short_date, 2066), (sym_long_date, 2066),
     (sym_date_and_time, 2123), (sym_short_date_and_time, 2067), (sym_long_date_and_time, 2067),
     (sym_int_type_name, 9449), (sym_sign_int_type_name, 2352), (sym_unsign_int_type_name, 2352),
     (sym_real_type_name, 9455), (sym_string_type_name, 9457), (sym_string_name, 2353),
     (sym_char_name, 2353), (sym_multibits_type_name, 9449), (sym_enum_value, 2089),
     (sym_direct_variable, 2060), (sym_ref_value, 2089), (sym_ref_addr, 2096),
     (sym_deref_expression, 2016), (sym_variable, 2054), (sym_var_access, 2016),
     (sym__expression, 3318), (sym_fold_expression, 2088), (sym_pack_element, 2088),
     (sym__primary_expression, 2088), (sym_parenthesized_expression, 2089),
     (sym_boolean_operator, 2088), (sym_or_operator, 2093), (sym_xor_operator, 2093),
     (sym_and_operator, 2093), (sym_comparison_operator, 2088), (sym_eq_operator, 2102),
     (sym_ord_operator, 2102), (sym_add_operator, 2088), (sym_mult_operator, 2088),
     (sym_power_operator, 2088), (sym_unary_operator, 2088), (sym_unary, 61),
     (sym_variable_access, 2089), (sym_func_call, 2089), (sym_begin_path_expression, 2049),
     (sym_invocation, 2044), (sym_any_invocation, 2043), (sym_this_invocation, 2019),
     (sym_super_invocation, 2019), (sym_super_body_invocation, 2043), (sym_path_expression, 2002),
     (sym_field_expression, 2016), (sym_index_expression, 2016), (sym_identifier, 35),
     (aux_sym_ERR_unexpected_this_in_path_token1, 37),
     (aux_sym_ERR_unexpected_super_in_path_token1, 39), (sym_line_comment, 3),
     (anon_sym_LPAREN, 43), (sym_unsigned_int, 47), (sym__explicit_signed_int, 47),
     (sym_binary_int, 49), (sym_octal_int, 49), (sym_hex_int, 51), (sym__explicit_signed_real, 53),
     (sym_real_value, 53), (aux_sym_bool_literal_with_string_token1, 55),
     (aux_sym_bool_literal_with_string_token2, 57), (aux_sym_bool_literal_with_string_token3, 57),
     (sym_s_byte_char_str, 59), (sym_d_byte_char_str, 59), (aux_sym_time_token1, 61),
     (anon_sym_PLUS, 63), (anon_sym_DASH, 63), (aux_sym_ltime_token1, 65), (aux_sym_tod_token1, 67),
     (aux_sym_ltod_token1, 69), (aux_sym_short_date_token1, 71), (aux_sym_long_date_token1, 73),
     (aux_sym_short_date_and_time_token1, 75), (aux_sym_long_date_and_time_token1, 77),
     (aux_sym_sign_int_type_name_token1, 79), (aux_sym_sign_int_type_name_token2, 79),
     (aux_sym_sign_int_type_name_token3, 79), (aux_sym_sign_int_type_name_token4, 79),
     (aux_sym_unsign_int_type_name_token1, 81), (aux_sym_unsign_int_type_name_token2, 81),
     (aux_sym_unsign_int_type_name_token3, 81), (aux_sym_unsign_int_type_name_token4, 81),
     (aux_sym_real_type_name_token1, 83), (aux_sym_real_type_name_token2, 83),
     (aux_sym_string_name_token1, 85), (aux_sym_char_name_token1, 87),
     (aux_sym_multibits_type_name_token1, 89), (aux_sym_multibits_type_name_token2, 89),
     (aux_sym_multibits_type_name_token3, 89), (aux_sym_multibits_type_name_token4, 89),
     (anon_sym_PERCENT, 91), (aux_sym_ref_value_token1, 93), (aux_sym_ref_addr_token1, 95),
     (anon_sym_DOT_DOT_DOT, 97), (aux_sym_unary_token1, 63), (sym_c_style_comment, 3),
     (sym_pascal_style_comment, 3), (sym_pragma, 3), (sym__minus_before_base, 99),
     (sym__plus_before_base, 99)]"

lemma ts_parse_row_43_scan: "row_scan tokens_4_1 0 ts_parse_row_43 = Some (Suc (Suc (Suc (Suc (Suc (Suc 0))))))"
  unfolding ts_parse_row_43_def by simp

text \<open>Lines 58522 to 58647.\<close>

definition ts_parse_row_44 :: parse_row where
  "ts_parse_row_44 =
    [(sym_ERR_assign_in_condition, 9258), (sym_ERR_unexpected_this_in_path, 2018),
     (sym_ERR_unexpected_super_in_path, 2018), (sym_constant, 2089), (sym_numeric_literal, 2090),
     (sym_int_literal, 2092), (sym_int_kind, 9320), (sym_signed_int, 2111),
     (sym_real_literal, 2092), (sym_signed_real_value, 2105), (sym_bool_literal, 2090),
     (sym_bool_literal_with_string, 2114), (sym_bool_literal_with_numeric, 2114),
     (sym_char_literal, 2090), (sym_char_str, 2120), (sym_time_literal, 2090), (sym_duration, 2123),
     (sym_time, 2087), (sym_ltime, 2087), (sym_time_of_day, 2123), (sym_tod, 2091),
     (sym_ltod, 2091), (sym_date, 2123), (sym_short_date, 2066), (sym_long_date, 2066),
     (sym_date_and_time, 2123), (sym_short_date_and_time, 2067), (sym_long_date_and_time, 2067),
     (sym_int_type_name, 9449), (sym_sign_int_type_name, 2352), (sym_unsign_int_type_name, 2352),
     (sym_real_type_name, 9455), (sym_string_type_name, 9457), (sym_string_name, 2353),
     (sym_char_name, 2353), (sym_multibits_type_name, 9449), (sym_enum_value, 2089),
     (sym_direct_variable, 2060), (sym_ref_value, 2089), (sym_ref_addr, 2096),
     (sym_deref_expression, 2016), (sym_variable, 2054), (sym_var_access, 2016),
     (sym__expression, 3319), (sym_fold_expression, 2088), (sym_pack_element, 2088),
     (sym__primary_expression, 2088), (sym_parenthesized_expression, 2089),
     (sym_boolean_operator, 2088), (sym_or_operator, 2093), (sym_xor_operator, 2093),
     (sym_and_operator, 2093), (sym_comparison_operator, 2088), (sym_eq_operator, 2102),
     (sym_ord_operator, 2102), (sym_add_operator, 2088), (sym_mult_operator, 2088),
     (sym_power_operator, 2088), (sym_unary_operator, 2088), (sym_unary, 61),
     (sym_variable_access, 2089), (sym_func_call, 2089), (sym_begin_path_expression, 2049),
     (sym_invocation, 2044), (sym_any_invocation, 2043), (sym_this_invocation, 2019),
     (sym_super_invocation, 2019), (sym_super_body_invocation, 2043), (sym_path_expression, 2002),
     (sym_field_expression, 2016), (sym_index_expression, 2016), (sym_identifier, 35),
     (aux_sym_ERR_unexpected_this_in_path_token1, 37),
     (aux_sym_ERR_unexpected_super_in_path_token1, 39), (sym_line_comment, 3),
     (anon_sym_LPAREN, 43), (sym_unsigned_int, 47), (sym__explicit_signed_int, 47),
     (sym_binary_int, 49), (sym_octal_int, 49), (sym_hex_int, 51), (sym__explicit_signed_real, 53),
     (sym_real_value, 53), (aux_sym_bool_literal_with_string_token1, 55),
     (aux_sym_bool_literal_with_string_token2, 57), (aux_sym_bool_literal_with_string_token3, 57),
     (sym_s_byte_char_str, 59), (sym_d_byte_char_str, 59), (aux_sym_time_token1, 61),
     (anon_sym_PLUS, 63), (anon_sym_DASH, 63), (aux_sym_ltime_token1, 65), (aux_sym_tod_token1, 67),
     (aux_sym_ltod_token1, 69), (aux_sym_short_date_token1, 71), (aux_sym_long_date_token1, 73),
     (aux_sym_short_date_and_time_token1, 75), (aux_sym_long_date_and_time_token1, 77),
     (aux_sym_sign_int_type_name_token1, 79), (aux_sym_sign_int_type_name_token2, 79),
     (aux_sym_sign_int_type_name_token3, 79), (aux_sym_sign_int_type_name_token4, 79),
     (aux_sym_unsign_int_type_name_token1, 81), (aux_sym_unsign_int_type_name_token2, 81),
     (aux_sym_unsign_int_type_name_token3, 81), (aux_sym_unsign_int_type_name_token4, 81),
     (aux_sym_real_type_name_token1, 83), (aux_sym_real_type_name_token2, 83),
     (aux_sym_string_name_token1, 85), (aux_sym_char_name_token1, 87),
     (aux_sym_multibits_type_name_token1, 89), (aux_sym_multibits_type_name_token2, 89),
     (aux_sym_multibits_type_name_token3, 89), (aux_sym_multibits_type_name_token4, 89),
     (anon_sym_PERCENT, 91), (aux_sym_ref_value_token1, 93), (aux_sym_ref_addr_token1, 95),
     (anon_sym_DOT_DOT_DOT, 97), (aux_sym_unary_token1, 63), (sym_c_style_comment, 3),
     (sym_pascal_style_comment, 3), (sym_pragma, 3), (sym__minus_before_base, 99),
     (sym__plus_before_base, 99)]"

lemma ts_parse_row_44_scan: "row_scan tokens_4_1 0 ts_parse_row_44 = Some (Suc (Suc (Suc (Suc (Suc (Suc 0))))))"
  unfolding ts_parse_row_44_def by simp

text \<open>Lines 58648 to 58773.\<close>

definition ts_parse_row_45 :: parse_row where
  "ts_parse_row_45 =
    [(sym_ERR_assign_in_condition, 10085), (sym_ERR_unexpected_this_in_path, 2018),
     (sym_ERR_unexpected_super_in_path, 2018), (sym_constant, 2089), (sym_numeric_literal, 2090),
     (sym_int_literal, 2092), (sym_int_kind, 9320), (sym_signed_int, 2111),
     (sym_real_literal, 2092), (sym_signed_real_value, 2105), (sym_bool_literal, 2090),
     (sym_bool_literal_with_string, 2114), (sym_bool_literal_with_numeric, 2114),
     (sym_char_literal, 2090), (sym_char_str, 2120), (sym_time_literal, 2090), (sym_duration, 2123),
     (sym_time, 2087), (sym_ltime, 2087), (sym_time_of_day, 2123), (sym_tod, 2091),
     (sym_ltod, 2091), (sym_date, 2123), (sym_short_date, 2066), (sym_long_date, 2066),
     (sym_date_and_time, 2123), (sym_short_date_and_time, 2067), (sym_long_date_and_time, 2067),
     (sym_int_type_name, 9449), (sym_sign_int_type_name, 2352), (sym_unsign_int_type_name, 2352),
     (sym_real_type_name, 9455), (sym_string_type_name, 9457), (sym_string_name, 2353),
     (sym_char_name, 2353), (sym_multibits_type_name, 9449), (sym_enum_value, 2089),
     (sym_direct_variable, 2060), (sym_ref_value, 2089), (sym_ref_addr, 2096),
     (sym_deref_expression, 2016), (sym_variable, 2054), (sym_var_access, 2016),
     (sym__expression, 3317), (sym_fold_expression, 2088), (sym_pack_element, 2088),
     (sym__primary_expression, 2088), (sym_parenthesized_expression, 2089),
     (sym_boolean_operator, 2088), (sym_or_operator, 2093), (sym_xor_operator, 2093),
     (sym_and_operator, 2093), (sym_comparison_operator, 2088), (sym_eq_operator, 2102),
     (sym_ord_operator, 2102), (sym_add_operator, 2088), (sym_mult_operator, 2088),
     (sym_power_operator, 2088), (sym_unary_operator, 2088), (sym_unary, 61),
     (sym_variable_access, 2089), (sym_func_call, 2089), (sym_begin_path_expression, 2049),
     (sym_invocation, 2044), (sym_any_invocation, 2043), (sym_this_invocation, 2019),
     (sym_super_invocation, 2019), (sym_super_body_invocation, 2043), (sym_path_expression, 2002),
     (sym_field_expression, 2016), (sym_index_expression, 2016), (sym_identifier, 35),
     (aux_sym_ERR_unexpected_this_in_path_token1, 37),
     (aux_sym_ERR_unexpected_super_in_path_token1, 39), (sym_line_comment, 3),
     (anon_sym_LPAREN, 43), (sym_unsigned_int, 47), (sym__explicit_signed_int, 47),
     (sym_binary_int, 49), (sym_octal_int, 49), (sym_hex_int, 51), (sym__explicit_signed_real, 53),
     (sym_real_value, 53), (aux_sym_bool_literal_with_string_token1, 55),
     (aux_sym_bool_literal_with_string_token2, 57), (aux_sym_bool_literal_with_string_token3, 57),
     (sym_s_byte_char_str, 59), (sym_d_byte_char_str, 59), (aux_sym_time_token1, 61),
     (anon_sym_PLUS, 63), (anon_sym_DASH, 63), (aux_sym_ltime_token1, 65), (aux_sym_tod_token1, 67),
     (aux_sym_ltod_token1, 69), (aux_sym_short_date_token1, 71), (aux_sym_long_date_token1, 73),
     (aux_sym_short_date_and_time_token1, 75), (aux_sym_long_date_and_time_token1, 77),
     (aux_sym_sign_int_type_name_token1, 79), (aux_sym_sign_int_type_name_token2, 79),
     (aux_sym_sign_int_type_name_token3, 79), (aux_sym_sign_int_type_name_token4, 79),
     (aux_sym_unsign_int_type_name_token1, 81), (aux_sym_unsign_int_type_name_token2, 81),
     (aux_sym_unsign_int_type_name_token3, 81), (aux_sym_unsign_int_type_name_token4, 81),
     (aux_sym_real_type_name_token1, 83), (aux_sym_real_type_name_token2, 83),
     (aux_sym_string_name_token1, 85), (aux_sym_char_name_token1, 87),
     (aux_sym_multibits_type_name_token1, 89), (aux_sym_multibits_type_name_token2, 89),
     (aux_sym_multibits_type_name_token3, 89), (aux_sym_multibits_type_name_token4, 89),
     (anon_sym_PERCENT, 91), (aux_sym_ref_value_token1, 93), (aux_sym_ref_addr_token1, 95),
     (anon_sym_DOT_DOT_DOT, 97), (aux_sym_unary_token1, 63), (sym_c_style_comment, 3),
     (sym_pascal_style_comment, 3), (sym_pragma, 3), (sym__minus_before_base, 99),
     (sym__plus_before_base, 99)]"

lemma ts_parse_row_45_scan: "row_scan tokens_4_1 0 ts_parse_row_45 = Some (Suc (Suc (Suc (Suc (Suc (Suc 0))))))"
  unfolding ts_parse_row_45_def by simp

text \<open>Lines 58774 to 58899.\<close>

definition ts_parse_row_46 :: parse_row where
  "ts_parse_row_46 =
    [(sym_ERR_assign_in_condition, 10450), (sym_ERR_unexpected_this_in_path, 2018),
     (sym_ERR_unexpected_super_in_path, 2018), (sym_constant, 2089), (sym_numeric_literal, 2090),
     (sym_int_literal, 2092), (sym_int_kind, 9320), (sym_signed_int, 2111),
     (sym_real_literal, 2092), (sym_signed_real_value, 2105), (sym_bool_literal, 2090),
     (sym_bool_literal_with_string, 2114), (sym_bool_literal_with_numeric, 2114),
     (sym_char_literal, 2090), (sym_char_str, 2120), (sym_time_literal, 2090), (sym_duration, 2123),
     (sym_time, 2087), (sym_ltime, 2087), (sym_time_of_day, 2123), (sym_tod, 2091),
     (sym_ltod, 2091), (sym_date, 2123), (sym_short_date, 2066), (sym_long_date, 2066),
     (sym_date_and_time, 2123), (sym_short_date_and_time, 2067), (sym_long_date_and_time, 2067),
     (sym_int_type_name, 9449), (sym_sign_int_type_name, 2352), (sym_unsign_int_type_name, 2352),
     (sym_real_type_name, 9455), (sym_string_type_name, 9457), (sym_string_name, 2353),
     (sym_char_name, 2353), (sym_multibits_type_name, 9449), (sym_enum_value, 2089),
     (sym_direct_variable, 2060), (sym_ref_value, 2089), (sym_ref_addr, 2096),
     (sym_deref_expression, 2016), (sym_variable, 2054), (sym_var_access, 2016),
     (sym__expression, 3320), (sym_fold_expression, 2088), (sym_pack_element, 2088),
     (sym__primary_expression, 2088), (sym_parenthesized_expression, 2089),
     (sym_boolean_operator, 2088), (sym_or_operator, 2093), (sym_xor_operator, 2093),
     (sym_and_operator, 2093), (sym_comparison_operator, 2088), (sym_eq_operator, 2102),
     (sym_ord_operator, 2102), (sym_add_operator, 2088), (sym_mult_operator, 2088),
     (sym_power_operator, 2088), (sym_unary_operator, 2088), (sym_unary, 61),
     (sym_variable_access, 2089), (sym_func_call, 2089), (sym_begin_path_expression, 2049),
     (sym_invocation, 2044), (sym_any_invocation, 2043), (sym_this_invocation, 2019),
     (sym_super_invocation, 2019), (sym_super_body_invocation, 2043), (sym_path_expression, 2002),
     (sym_field_expression, 2016), (sym_index_expression, 2016), (sym_identifier, 35),
     (aux_sym_ERR_unexpected_this_in_path_token1, 37),
     (aux_sym_ERR_unexpected_super_in_path_token1, 39), (sym_line_comment, 3),
     (anon_sym_LPAREN, 43), (sym_unsigned_int, 47), (sym__explicit_signed_int, 47),
     (sym_binary_int, 49), (sym_octal_int, 49), (sym_hex_int, 51), (sym__explicit_signed_real, 53),
     (sym_real_value, 53), (aux_sym_bool_literal_with_string_token1, 55),
     (aux_sym_bool_literal_with_string_token2, 57), (aux_sym_bool_literal_with_string_token3, 57),
     (sym_s_byte_char_str, 59), (sym_d_byte_char_str, 59), (aux_sym_time_token1, 61),
     (anon_sym_PLUS, 63), (anon_sym_DASH, 63), (aux_sym_ltime_token1, 65), (aux_sym_tod_token1, 67),
     (aux_sym_ltod_token1, 69), (aux_sym_short_date_token1, 71), (aux_sym_long_date_token1, 73),
     (aux_sym_short_date_and_time_token1, 75), (aux_sym_long_date_and_time_token1, 77),
     (aux_sym_sign_int_type_name_token1, 79), (aux_sym_sign_int_type_name_token2, 79),
     (aux_sym_sign_int_type_name_token3, 79), (aux_sym_sign_int_type_name_token4, 79),
     (aux_sym_unsign_int_type_name_token1, 81), (aux_sym_unsign_int_type_name_token2, 81),
     (aux_sym_unsign_int_type_name_token3, 81), (aux_sym_unsign_int_type_name_token4, 81),
     (aux_sym_real_type_name_token1, 83), (aux_sym_real_type_name_token2, 83),
     (aux_sym_string_name_token1, 85), (aux_sym_char_name_token1, 87),
     (aux_sym_multibits_type_name_token1, 89), (aux_sym_multibits_type_name_token2, 89),
     (aux_sym_multibits_type_name_token3, 89), (aux_sym_multibits_type_name_token4, 89),
     (anon_sym_PERCENT, 91), (aux_sym_ref_value_token1, 93), (aux_sym_ref_addr_token1, 95),
     (anon_sym_DOT_DOT_DOT, 97), (aux_sym_unary_token1, 63), (sym_c_style_comment, 3),
     (sym_pascal_style_comment, 3), (sym_pragma, 3), (sym__minus_before_base, 99),
     (sym__plus_before_base, 99)]"

lemma ts_parse_row_46_scan: "row_scan tokens_4_1 0 ts_parse_row_46 = Some (Suc (Suc (Suc (Suc (Suc (Suc 0))))))"
  unfolding ts_parse_row_46_def by simp

text \<open>Lines 58900 to 59024.\<close>

definition ts_parse_row_47 :: parse_row where
  "ts_parse_row_47 =
    [(sym_ERR_unexpected_this_in_path, 2018), (sym_ERR_unexpected_super_in_path, 2018),
     (sym_constant, 2089), (sym_numeric_literal, 2090), (sym_int_literal, 2092),
     (sym_int_kind, 9320), (sym_signed_int, 2111), (sym_real_literal, 2092),
     (sym_signed_real_value, 2105), (sym_bool_literal, 2090), (sym_bool_literal_with_string, 2114),
     (sym_bool_literal_with_numeric, 2114), (sym_char_literal, 2090), (sym_char_str, 2120),
     (sym_time_literal, 2090), (sym_duration, 2123), (sym_time, 2087), (sym_ltime, 2087),
     (sym_time_of_day, 2123), (sym_tod, 2091), (sym_ltod, 2091), (sym_date, 2123),
     (sym_short_date, 2066), (sym_long_date, 2066), (sym_date_and_time, 2123),
     (sym_short_date_and_time, 2067), (sym_long_date_and_time, 2067), (sym_int_type_name, 9449),
     (sym_sign_int_type_name, 2352), (sym_unsign_int_type_name, 2352), (sym_real_type_name, 9455),
     (sym_string_type_name, 9457), (sym_string_name, 2353), (sym_char_name, 2353),
     (sym_multibits_type_name, 9449), (sym_enum_value, 2089), (sym_direct_variable, 2060),
     (sym_ref_value, 2089), (sym_ref_addr, 2096), (sym_deref_expression, 2016),
     (sym_variable, 2054), (sym_var_access, 2016), (sym__expression, 2338),
     (sym_fold_expression, 2088), (sym_pack_element, 2088), (sym__primary_expression, 2088),
     (sym_parenthesized_expression, 2089), (sym_boolean_operator, 2088), (sym_or_operator, 2093),
     (sym_xor_operator, 2093), (sym_and_operator, 2093), (sym_comparison_operator, 2088),
     (sym_eq_operator, 2102), (sym_ord_operator, 2102), (sym_add_operator, 2088),
     (sym_mult_operator, 2088), (sym_power_operator, 2088), (sym_unary_operator, 2088),
     (sym_unary, 61), (sym_variable_access, 2089), (sym_func_call, 2089),
     (sym_begin_path_expression, 2049), (sym_invocation, 2044), (sym_any_invocation, 2043),
     (sym_this_invocation, 2019), (sym_super_invocation, 2019), (sym_super_body_invocation, 2043),
     (sym_path_expression, 2002), (sym_field_expression, 2016), (sym_index_expression, 2016),
     (sym_identifier, 35), (aux_sym_ERR_unexpected_this_in_path_token1, 37),
     (aux_sym_ERR_unexpected_super_in_path_token1, 39), (sym_line_comment, 3),
     (anon_sym_LPAREN, 43), (sym_unsigned_int, 47), (sym__explicit_signed_int, 47),
     (sym_binary_int, 49), (sym_octal_int, 49), (sym_hex_int, 51), (sym__explicit_signed_real, 53),
     (sym_real_value, 53), (aux_sym_bool_literal_with_string_token1, 55),
     (aux_sym_bool_literal_with_string_token2, 57), (aux_sym_bool_literal_with_string_token3, 57),
     (sym_s_byte_char_str, 59), (sym_d_byte_char_str, 59), (aux_sym_time_token1, 61),
     (anon_sym_PLUS, 63), (anon_sym_DASH, 63), (aux_sym_ltime_token1, 65), (aux_sym_tod_token1, 67),
     (aux_sym_ltod_token1, 69), (aux_sym_short_date_token1, 71), (aux_sym_long_date_token1, 73),
     (aux_sym_short_date_and_time_token1, 75), (aux_sym_long_date_and_time_token1, 77),
     (aux_sym_sign_int_type_name_token1, 79), (aux_sym_sign_int_type_name_token2, 79),
     (aux_sym_sign_int_type_name_token3, 79), (aux_sym_sign_int_type_name_token4, 79),
     (aux_sym_unsign_int_type_name_token1, 81), (aux_sym_unsign_int_type_name_token2, 81),
     (aux_sym_unsign_int_type_name_token3, 81), (aux_sym_unsign_int_type_name_token4, 81),
     (aux_sym_real_type_name_token1, 83), (aux_sym_real_type_name_token2, 83),
     (aux_sym_string_name_token1, 85), (aux_sym_char_name_token1, 87),
     (aux_sym_multibits_type_name_token1, 89), (aux_sym_multibits_type_name_token2, 89),
     (aux_sym_multibits_type_name_token3, 89), (aux_sym_multibits_type_name_token4, 89),
     (anon_sym_PERCENT, 91), (aux_sym_ref_value_token1, 93), (aux_sym_ref_addr_token1, 95),
     (anon_sym_DOT_DOT_DOT, 97), (aux_sym_unary_token1, 63), (sym_c_style_comment, 3),
     (sym_pascal_style_comment, 3), (sym_pragma, 3), (sym__minus_before_base, 99),
     (sym__plus_before_base, 99)]"

lemma ts_parse_row_47_scan: "row_scan tokens_4_1 0 ts_parse_row_47 = Some (Suc (Suc (Suc (Suc (Suc (Suc 0))))))"
  unfolding ts_parse_row_47_def by simp

text \<open>Lines 59025 to 59149.\<close>

definition ts_parse_row_48 :: parse_row where
  "ts_parse_row_48 =
    [(sym_ERR_unexpected_this_in_path, 2018), (sym_ERR_unexpected_super_in_path, 2018),
     (sym_constant, 2089), (sym_numeric_literal, 2090), (sym_int_literal, 2092),
     (sym_int_kind, 9320), (sym_signed_int, 2111), (sym_real_literal, 2092),
     (sym_signed_real_value, 2105), (sym_bool_literal, 2090), (sym_bool_literal_with_string, 2114),
     (sym_bool_literal_with_numeric, 2114), (sym_char_literal, 2090), (sym_char_str, 2120),
     (sym_time_literal, 2090), (sym_duration, 2123), (sym_time, 2087), (sym_ltime, 2087),
     (sym_time_of_day, 2123), (sym_tod, 2091), (sym_ltod, 2091), (sym_date, 2123),
     (sym_short_date, 2066), (sym_long_date, 2066), (sym_date_and_time, 2123),
     (sym_short_date_and_time, 2067), (sym_long_date_and_time, 2067), (sym_int_type_name, 9449),
     (sym_sign_int_type_name, 2352), (sym_unsign_int_type_name, 2352), (sym_real_type_name, 9455),
     (sym_string_type_name, 9457), (sym_string_name, 2353), (sym_char_name, 2353),
     (sym_multibits_type_name, 9449), (sym_enum_value, 2089), (sym_direct_variable, 2060),
     (sym_ref_value, 2089), (sym_ref_addr, 2096), (sym_deref_expression, 2016),
     (sym_variable, 2054), (sym_var_access, 2016), (sym__expression, 3342),
     (sym_fold_expression, 2088), (sym_pack_element, 2088), (sym__primary_expression, 2088),
     (sym_parenthesized_expression, 2089), (sym_boolean_operator, 2088), (sym_or_operator, 2093),
     (sym_xor_operator, 2093), (sym_and_operator, 2093), (sym_comparison_operator, 2088),
     (sym_eq_operator, 2102), (sym_ord_operator, 2102), (sym_add_operator, 2088),
     (sym_mult_operator, 2088), (sym_power_operator, 2088), (sym_unary_operator, 2088),
     (sym_unary, 61), (sym_variable_access, 2089), (sym_func_call, 2089),
     (sym_begin_path_expression, 2049), (sym_invocation, 2044), (sym_any_invocation, 2043),
     (sym_this_invocation, 2019), (sym_super_invocation, 2019), (sym_super_body_invocation, 2043),
     (sym_path_expression, 2002), (sym_field_expression, 2016), (sym_index_expression, 2016),
     (sym_identifier, 35), (aux_sym_ERR_unexpected_this_in_path_token1, 37),
     (aux_sym_ERR_unexpected_super_in_path_token1, 39), (sym_line_comment, 3),
     (anon_sym_LPAREN, 43), (sym_unsigned_int, 47), (sym__explicit_signed_int, 47),
     (sym_binary_int, 49), (sym_octal_int, 49), (sym_hex_int, 51), (sym__explicit_signed_real, 53),
     (sym_real_value, 53), (aux_sym_bool_literal_with_string_token1, 55),
     (aux_sym_bool_literal_with_string_token2, 57), (aux_sym_bool_literal_with_string_token3, 57),
     (sym_s_byte_char_str, 59), (sym_d_byte_char_str, 59), (aux_sym_time_token1, 61),
     (anon_sym_PLUS, 63), (anon_sym_DASH, 63), (aux_sym_ltime_token1, 65), (aux_sym_tod_token1, 67),
     (aux_sym_ltod_token1, 69), (aux_sym_short_date_token1, 71), (aux_sym_long_date_token1, 73),
     (aux_sym_short_date_and_time_token1, 75), (aux_sym_long_date_and_time_token1, 77),
     (aux_sym_sign_int_type_name_token1, 79), (aux_sym_sign_int_type_name_token2, 79),
     (aux_sym_sign_int_type_name_token3, 79), (aux_sym_sign_int_type_name_token4, 79),
     (aux_sym_unsign_int_type_name_token1, 81), (aux_sym_unsign_int_type_name_token2, 81),
     (aux_sym_unsign_int_type_name_token3, 81), (aux_sym_unsign_int_type_name_token4, 81),
     (aux_sym_real_type_name_token1, 83), (aux_sym_real_type_name_token2, 83),
     (aux_sym_string_name_token1, 85), (aux_sym_char_name_token1, 87),
     (aux_sym_multibits_type_name_token1, 89), (aux_sym_multibits_type_name_token2, 89),
     (aux_sym_multibits_type_name_token3, 89), (aux_sym_multibits_type_name_token4, 89),
     (anon_sym_PERCENT, 91), (aux_sym_ref_value_token1, 93), (aux_sym_ref_addr_token1, 95),
     (anon_sym_DOT_DOT_DOT, 97), (aux_sym_unary_token1, 63), (sym_c_style_comment, 3),
     (sym_pascal_style_comment, 3), (sym_pragma, 3), (sym__minus_before_base, 99),
     (sym__plus_before_base, 99)]"

lemma ts_parse_row_48_scan: "row_scan tokens_4_1 0 ts_parse_row_48 = Some (Suc (Suc (Suc (Suc (Suc (Suc 0))))))"
  unfolding ts_parse_row_48_def by simp

text \<open>Lines 59150 to 59274.\<close>

definition ts_parse_row_49 :: parse_row where
  "ts_parse_row_49 =
    [(sym_ERR_unexpected_this_in_path, 2018), (sym_ERR_unexpected_super_in_path, 2018),
     (sym_constant, 2089), (sym_numeric_literal, 2090), (sym_int_literal, 2092),
     (sym_int_kind, 9320), (sym_signed_int, 2111), (sym_real_literal, 2092),
     (sym_signed_real_value, 2105), (sym_bool_literal, 2090), (sym_bool_literal_with_string, 2114),
     (sym_bool_literal_with_numeric, 2114), (sym_char_literal, 2090), (sym_char_str, 2120),
     (sym_time_literal, 2090), (sym_duration, 2123), (sym_time, 2087), (sym_ltime, 2087),
     (sym_time_of_day, 2123), (sym_tod, 2091), (sym_ltod, 2091), (sym_date, 2123),
     (sym_short_date, 2066), (sym_long_date, 2066), (sym_date_and_time, 2123),
     (sym_short_date_and_time, 2067), (sym_long_date_and_time, 2067), (sym_int_type_name, 9449),
     (sym_sign_int_type_name, 2352), (sym_unsign_int_type_name, 2352), (sym_real_type_name, 9455),
     (sym_string_type_name, 9457), (sym_string_name, 2353), (sym_char_name, 2353),
     (sym_multibits_type_name, 9449), (sym_enum_value, 2089), (sym_direct_variable, 2060),
     (sym_ref_value, 2089), (sym_ref_addr, 2096), (sym_deref_expression, 2016),
     (sym_variable, 2054), (sym_var_access, 2016), (sym__expression, 3325),
     (sym_fold_expression, 2088), (sym_pack_element, 2088), (sym__primary_expression, 2088),
     (sym_parenthesized_expression, 2089), (sym_boolean_operator, 2088), (sym_or_operator, 2093),
     (sym_xor_operator, 2093), (sym_and_operator, 2093), (sym_comparison_operator, 2088),
     (sym_eq_operator, 2102), (sym_ord_operator, 2102), (sym_add_operator, 2088),
     (sym_mult_operator, 2088), (sym_power_operator, 2088), (sym_unary_operator, 2088),
     (sym_unary, 61), (sym_variable_access, 2089), (sym_func_call, 2089),
     (sym_begin_path_expression, 2049), (sym_invocation, 2044), (sym_any_invocation, 2043),
     (sym_this_invocation, 2019), (sym_super_invocation, 2019), (sym_super_body_invocation, 2043),
     (sym_path_expression, 2002), (sym_field_expression, 2016), (sym_index_expression, 2016),
     (sym_identifier, 35), (aux_sym_ERR_unexpected_this_in_path_token1, 37),
     (aux_sym_ERR_unexpected_super_in_path_token1, 39), (sym_line_comment, 3),
     (anon_sym_LPAREN, 43), (sym_unsigned_int, 47), (sym__explicit_signed_int, 47),
     (sym_binary_int, 49), (sym_octal_int, 49), (sym_hex_int, 51), (sym__explicit_signed_real, 53),
     (sym_real_value, 53), (aux_sym_bool_literal_with_string_token1, 55),
     (aux_sym_bool_literal_with_string_token2, 57), (aux_sym_bool_literal_with_string_token3, 57),
     (sym_s_byte_char_str, 59), (sym_d_byte_char_str, 59), (aux_sym_time_token1, 61),
     (anon_sym_PLUS, 63), (anon_sym_DASH, 63), (aux_sym_ltime_token1, 65), (aux_sym_tod_token1, 67),
     (aux_sym_ltod_token1, 69), (aux_sym_short_date_token1, 71), (aux_sym_long_date_token1, 73),
     (aux_sym_short_date_and_time_token1, 75), (aux_sym_long_date_and_time_token1, 77),
     (aux_sym_sign_int_type_name_token1, 79), (aux_sym_sign_int_type_name_token2, 79),
     (aux_sym_sign_int_type_name_token3, 79), (aux_sym_sign_int_type_name_token4, 79),
     (aux_sym_unsign_int_type_name_token1, 81), (aux_sym_unsign_int_type_name_token2, 81),
     (aux_sym_unsign_int_type_name_token3, 81), (aux_sym_unsign_int_type_name_token4, 81),
     (aux_sym_real_type_name_token1, 83), (aux_sym_real_type_name_token2, 83),
     (aux_sym_string_name_token1, 85), (aux_sym_char_name_token1, 87),
     (aux_sym_multibits_type_name_token1, 89), (aux_sym_multibits_type_name_token2, 89),
     (aux_sym_multibits_type_name_token3, 89), (aux_sym_multibits_type_name_token4, 89),
     (anon_sym_PERCENT, 91), (aux_sym_ref_value_token1, 93), (aux_sym_ref_addr_token1, 95),
     (anon_sym_DOT_DOT_DOT, 97), (aux_sym_unary_token1, 63), (sym_c_style_comment, 3),
     (sym_pascal_style_comment, 3), (sym_pragma, 3), (sym__minus_before_base, 99),
     (sym__plus_before_base, 99)]"

lemma ts_parse_row_49_scan: "row_scan tokens_4_1 0 ts_parse_row_49 = Some (Suc (Suc (Suc (Suc (Suc (Suc 0))))))"
  unfolding ts_parse_row_49_def by simp

text \<open>Lines 59275 to 59399.\<close>

definition ts_parse_row_50 :: parse_row where
  "ts_parse_row_50 =
    [(sym_ERR_unexpected_this_in_path, 2018), (sym_ERR_unexpected_super_in_path, 2018),
     (sym_constant, 2089), (sym_numeric_literal, 2090), (sym_int_literal, 2092),
     (sym_int_kind, 9320), (sym_signed_int, 2111), (sym_real_literal, 2092),
     (sym_signed_real_value, 2105), (sym_bool_literal, 2090), (sym_bool_literal_with_string, 2114),
     (sym_bool_literal_with_numeric, 2114), (sym_char_literal, 2090), (sym_char_str, 2120),
     (sym_time_literal, 2090), (sym_duration, 2123), (sym_time, 2087), (sym_ltime, 2087),
     (sym_time_of_day, 2123), (sym_tod, 2091), (sym_ltod, 2091), (sym_date, 2123),
     (sym_short_date, 2066), (sym_long_date, 2066), (sym_date_and_time, 2123),
     (sym_short_date_and_time, 2067), (sym_long_date_and_time, 2067), (sym_int_type_name, 9449),
     (sym_sign_int_type_name, 2352), (sym_unsign_int_type_name, 2352), (sym_real_type_name, 9455),
     (sym_string_type_name, 9457), (sym_string_name, 2353), (sym_char_name, 2353),
     (sym_multibits_type_name, 9449), (sym_enum_value, 2089), (sym_direct_variable, 2060),
     (sym_ref_value, 2089), (sym_ref_addr, 2096), (sym_deref_expression, 2016),
     (sym_variable, 2054), (sym_var_access, 2016), (sym__expression, 2337),
     (sym_fold_expression, 2088), (sym_pack_element, 2088), (sym__primary_expression, 2088),
     (sym_parenthesized_expression, 2089), (sym_boolean_operator, 2088), (sym_or_operator, 2093),
     (sym_xor_operator, 2093), (sym_and_operator, 2093), (sym_comparison_operator, 2088),
     (sym_eq_operator, 2102), (sym_ord_operator, 2102), (sym_add_operator, 2088),
     (sym_mult_operator, 2088), (sym_power_operator, 2088), (sym_unary_operator, 2088),
     (sym_unary, 61), (sym_variable_access, 2089), (sym_func_call, 2089),
     (sym_begin_path_expression, 2049), (sym_invocation, 2044), (sym_any_invocation, 2043),
     (sym_this_invocation, 2019), (sym_super_invocation, 2019), (sym_super_body_invocation, 2043),
     (sym_path_expression, 2002), (sym_field_expression, 2016), (sym_index_expression, 2016),
     (sym_identifier, 35), (aux_sym_ERR_unexpected_this_in_path_token1, 37),
     (aux_sym_ERR_unexpected_super_in_path_token1, 39), (sym_line_comment, 3),
     (anon_sym_LPAREN, 43), (sym_unsigned_int, 47), (sym__explicit_signed_int, 47),
     (sym_binary_int, 49), (sym_octal_int, 49), (sym_hex_int, 51), (sym__explicit_signed_real, 53),
     (sym_real_value, 53), (aux_sym_bool_literal_with_string_token1, 55),
     (aux_sym_bool_literal_with_string_token2, 57), (aux_sym_bool_literal_with_string_token3, 57),
     (sym_s_byte_char_str, 59), (sym_d_byte_char_str, 59), (aux_sym_time_token1, 61),
     (anon_sym_PLUS, 63), (anon_sym_DASH, 63), (aux_sym_ltime_token1, 65), (aux_sym_tod_token1, 67),
     (aux_sym_ltod_token1, 69), (aux_sym_short_date_token1, 71), (aux_sym_long_date_token1, 73),
     (aux_sym_short_date_and_time_token1, 75), (aux_sym_long_date_and_time_token1, 77),
     (aux_sym_sign_int_type_name_token1, 79), (aux_sym_sign_int_type_name_token2, 79),
     (aux_sym_sign_int_type_name_token3, 79), (aux_sym_sign_int_type_name_token4, 79),
     (aux_sym_unsign_int_type_name_token1, 81), (aux_sym_unsign_int_type_name_token2, 81),
     (aux_sym_unsign_int_type_name_token3, 81), (aux_sym_unsign_int_type_name_token4, 81),
     (aux_sym_real_type_name_token1, 83), (aux_sym_real_type_name_token2, 83),
     (aux_sym_string_name_token1, 85), (aux_sym_char_name_token1, 87),
     (aux_sym_multibits_type_name_token1, 89), (aux_sym_multibits_type_name_token2, 89),
     (aux_sym_multibits_type_name_token3, 89), (aux_sym_multibits_type_name_token4, 89),
     (anon_sym_PERCENT, 91), (aux_sym_ref_value_token1, 93), (aux_sym_ref_addr_token1, 95),
     (anon_sym_DOT_DOT_DOT, 97), (aux_sym_unary_token1, 63), (sym_c_style_comment, 3),
     (sym_pascal_style_comment, 3), (sym_pragma, 3), (sym__minus_before_base, 99),
     (sym__plus_before_base, 99)]"

lemma ts_parse_row_50_scan: "row_scan tokens_4_1 0 ts_parse_row_50 = Some (Suc (Suc (Suc (Suc (Suc (Suc 0))))))"
  unfolding ts_parse_row_50_def by simp

text \<open>Lines 59400 to 59524.\<close>

definition ts_parse_row_51 :: parse_row where
  "ts_parse_row_51 =
    [(sym_ERR_unexpected_this_in_path, 2018), (sym_ERR_unexpected_super_in_path, 2018),
     (sym_constant, 2089), (sym_numeric_literal, 2090), (sym_int_literal, 2092),
     (sym_int_kind, 9320), (sym_signed_int, 2111), (sym_real_literal, 2092),
     (sym_signed_real_value, 2105), (sym_bool_literal, 2090), (sym_bool_literal_with_string, 2114),
     (sym_bool_literal_with_numeric, 2114), (sym_char_literal, 2090), (sym_char_str, 2120),
     (sym_time_literal, 2090), (sym_duration, 2123), (sym_time, 2087), (sym_ltime, 2087),
     (sym_time_of_day, 2123), (sym_tod, 2091), (sym_ltod, 2091), (sym_date, 2123),
     (sym_short_date, 2066), (sym_long_date, 2066), (sym_date_and_time, 2123),
     (sym_short_date_and_time, 2067), (sym_long_date_and_time, 2067), (sym_int_type_name, 9449),
     (sym_sign_int_type_name, 2352), (sym_unsign_int_type_name, 2352), (sym_real_type_name, 9455),
     (sym_string_type_name, 9457), (sym_string_name, 2353), (sym_char_name, 2353),
     (sym_multibits_type_name, 9449), (sym_enum_value, 2089), (sym_direct_variable, 2060),
     (sym_ref_value, 2089), (sym_ref_addr, 2096), (sym_deref_expression, 2016),
     (sym_variable, 2054), (sym_var_access, 2016), (sym__expression, 2339),
     (sym_fold_expression, 2088), (sym_pack_element, 2088), (sym__primary_expression, 2088),
     (sym_parenthesized_expression, 2089), (sym_boolean_operator, 2088), (sym_or_operator, 2093),
     (sym_xor_operator, 2093), (sym_and_operator, 2093), (sym_comparison_operator, 2088),
     (sym_eq_operator, 2102), (sym_ord_operator, 2102), (sym_add_operator, 2088),
     (sym_mult_operator, 2088), (sym_power_operator, 2088), (sym_unary_operator, 2088),
     (sym_unary, 61), (sym_variable_access, 2089), (sym_func_call, 2089),
     (sym_begin_path_expression, 2049), (sym_invocation, 2044), (sym_any_invocation, 2043),
     (sym_this_invocation, 2019), (sym_super_invocation, 2019), (sym_super_body_invocation, 2043),
     (sym_path_expression, 2002), (sym_field_expression, 2016), (sym_index_expression, 2016),
     (sym_identifier, 35), (aux_sym_ERR_unexpected_this_in_path_token1, 37),
     (aux_sym_ERR_unexpected_super_in_path_token1, 39), (sym_line_comment, 3),
     (anon_sym_LPAREN, 43), (sym_unsigned_int, 47), (sym__explicit_signed_int, 47),
     (sym_binary_int, 49), (sym_octal_int, 49), (sym_hex_int, 51), (sym__explicit_signed_real, 53),
     (sym_real_value, 53), (aux_sym_bool_literal_with_string_token1, 55),
     (aux_sym_bool_literal_with_string_token2, 57), (aux_sym_bool_literal_with_string_token3, 57),
     (sym_s_byte_char_str, 59), (sym_d_byte_char_str, 59), (aux_sym_time_token1, 61),
     (anon_sym_PLUS, 63), (anon_sym_DASH, 63), (aux_sym_ltime_token1, 65), (aux_sym_tod_token1, 67),
     (aux_sym_ltod_token1, 69), (aux_sym_short_date_token1, 71), (aux_sym_long_date_token1, 73),
     (aux_sym_short_date_and_time_token1, 75), (aux_sym_long_date_and_time_token1, 77),
     (aux_sym_sign_int_type_name_token1, 79), (aux_sym_sign_int_type_name_token2, 79),
     (aux_sym_sign_int_type_name_token3, 79), (aux_sym_sign_int_type_name_token4, 79),
     (aux_sym_unsign_int_type_name_token1, 81), (aux_sym_unsign_int_type_name_token2, 81),
     (aux_sym_unsign_int_type_name_token3, 81), (aux_sym_unsign_int_type_name_token4, 81),
     (aux_sym_real_type_name_token1, 83), (aux_sym_real_type_name_token2, 83),
     (aux_sym_string_name_token1, 85), (aux_sym_char_name_token1, 87),
     (aux_sym_multibits_type_name_token1, 89), (aux_sym_multibits_type_name_token2, 89),
     (aux_sym_multibits_type_name_token3, 89), (aux_sym_multibits_type_name_token4, 89),
     (anon_sym_PERCENT, 91), (aux_sym_ref_value_token1, 93), (aux_sym_ref_addr_token1, 95),
     (anon_sym_DOT_DOT_DOT, 97), (aux_sym_unary_token1, 63), (sym_c_style_comment, 3),
     (sym_pascal_style_comment, 3), (sym_pragma, 3), (sym__minus_before_base, 99),
     (sym__plus_before_base, 99)]"

lemma ts_parse_row_51_scan: "row_scan tokens_4_1 0 ts_parse_row_51 = Some (Suc (Suc (Suc (Suc (Suc (Suc 0))))))"
  unfolding ts_parse_row_51_def by simp

text \<open>Lines 59525 to 59649.\<close>

definition ts_parse_row_52 :: parse_row where
  "ts_parse_row_52 =
    [(sym_ERR_unexpected_this_in_path, 2018), (sym_ERR_unexpected_super_in_path, 2018),
     (sym_constant, 2089), (sym_numeric_literal, 2090), (sym_int_literal, 2092),
     (sym_int_kind, 9320), (sym_signed_int, 2111), (sym_real_literal, 2092),
     (sym_signed_real_value, 2105), (sym_bool_literal, 2090), (sym_bool_literal_with_string, 2114),
     (sym_bool_literal_with_numeric, 2114), (sym_char_literal, 2090), (sym_char_str, 2120),
     (sym_time_literal, 2090), (sym_duration, 2123), (sym_time, 2087), (sym_ltime, 2087),
     (sym_time_of_day, 2123), (sym_tod, 2091), (sym_ltod, 2091), (sym_date, 2123),
     (sym_short_date, 2066), (sym_long_date, 2066), (sym_date_and_time, 2123),
     (sym_short_date_and_time, 2067), (sym_long_date_and_time, 2067), (sym_int_type_name, 9449),
     (sym_sign_int_type_name, 2352), (sym_unsign_int_type_name, 2352), (sym_real_type_name, 9455),
     (sym_string_type_name, 9457), (sym_string_name, 2353), (sym_char_name, 2353),
     (sym_multibits_type_name, 9449), (sym_enum_value, 2089), (sym_direct_variable, 2060),
     (sym_ref_value, 2089), (sym_ref_addr, 2096), (sym_deref_expression, 2016),
     (sym_variable, 2054), (sym_var_access, 2016), (sym__expression, 3338),
     (sym_fold_expression, 2088), (sym_pack_element, 2088), (sym__primary_expression, 2088),
     (sym_parenthesized_expression, 2089), (sym_boolean_operator, 2088), (sym_or_operator, 2093),
     (sym_xor_operator, 2093), (sym_and_operator, 2093), (sym_comparison_operator, 2088),
     (sym_eq_operator, 2102), (sym_ord_operator, 2102), (sym_add_operator, 2088),
     (sym_mult_operator, 2088), (sym_power_operator, 2088), (sym_unary_operator, 2088),
     (sym_unary, 61), (sym_variable_access, 2089), (sym_func_call, 2089),
     (sym_begin_path_expression, 2049), (sym_invocation, 2044), (sym_any_invocation, 2043),
     (sym_this_invocation, 2019), (sym_super_invocation, 2019), (sym_super_body_invocation, 2043),
     (sym_path_expression, 2002), (sym_field_expression, 2016), (sym_index_expression, 2016),
     (sym_identifier, 35), (aux_sym_ERR_unexpected_this_in_path_token1, 37),
     (aux_sym_ERR_unexpected_super_in_path_token1, 39), (sym_line_comment, 3),
     (anon_sym_LPAREN, 43), (sym_unsigned_int, 47), (sym__explicit_signed_int, 47),
     (sym_binary_int, 49), (sym_octal_int, 49), (sym_hex_int, 51), (sym__explicit_signed_real, 53),
     (sym_real_value, 53), (aux_sym_bool_literal_with_string_token1, 55),
     (aux_sym_bool_literal_with_string_token2, 57), (aux_sym_bool_literal_with_string_token3, 57),
     (sym_s_byte_char_str, 59), (sym_d_byte_char_str, 59), (aux_sym_time_token1, 61),
     (anon_sym_PLUS, 63), (anon_sym_DASH, 63), (aux_sym_ltime_token1, 65), (aux_sym_tod_token1, 67),
     (aux_sym_ltod_token1, 69), (aux_sym_short_date_token1, 71), (aux_sym_long_date_token1, 73),
     (aux_sym_short_date_and_time_token1, 75), (aux_sym_long_date_and_time_token1, 77),
     (aux_sym_sign_int_type_name_token1, 79), (aux_sym_sign_int_type_name_token2, 79),
     (aux_sym_sign_int_type_name_token3, 79), (aux_sym_sign_int_type_name_token4, 79),
     (aux_sym_unsign_int_type_name_token1, 81), (aux_sym_unsign_int_type_name_token2, 81),
     (aux_sym_unsign_int_type_name_token3, 81), (aux_sym_unsign_int_type_name_token4, 81),
     (aux_sym_real_type_name_token1, 83), (aux_sym_real_type_name_token2, 83),
     (aux_sym_string_name_token1, 85), (aux_sym_char_name_token1, 87),
     (aux_sym_multibits_type_name_token1, 89), (aux_sym_multibits_type_name_token2, 89),
     (aux_sym_multibits_type_name_token3, 89), (aux_sym_multibits_type_name_token4, 89),
     (anon_sym_PERCENT, 91), (aux_sym_ref_value_token1, 93), (aux_sym_ref_addr_token1, 95),
     (anon_sym_DOT_DOT_DOT, 97), (aux_sym_unary_token1, 63), (sym_c_style_comment, 3),
     (sym_pascal_style_comment, 3), (sym_pragma, 3), (sym__minus_before_base, 99),
     (sym__plus_before_base, 99)]"

lemma ts_parse_row_52_scan: "row_scan tokens_4_1 0 ts_parse_row_52 = Some (Suc (Suc (Suc (Suc (Suc (Suc 0))))))"
  unfolding ts_parse_row_52_def by simp

text \<open>Lines 59650 to 59774.\<close>

definition ts_parse_row_53 :: parse_row where
  "ts_parse_row_53 =
    [(sym_ERR_unexpected_this_in_path, 2018), (sym_ERR_unexpected_super_in_path, 2018),
     (sym_constant, 2089), (sym_numeric_literal, 2090), (sym_int_literal, 2092),
     (sym_int_kind, 9320), (sym_signed_int, 2111), (sym_real_literal, 2092),
     (sym_signed_real_value, 2105), (sym_bool_literal, 2090), (sym_bool_literal_with_string, 2114),
     (sym_bool_literal_with_numeric, 2114), (sym_char_literal, 2090), (sym_char_str, 2120),
     (sym_time_literal, 2090), (sym_duration, 2123), (sym_time, 2087), (sym_ltime, 2087),
     (sym_time_of_day, 2123), (sym_tod, 2091), (sym_ltod, 2091), (sym_date, 2123),
     (sym_short_date, 2066), (sym_long_date, 2066), (sym_date_and_time, 2123),
     (sym_short_date_and_time, 2067), (sym_long_date_and_time, 2067), (sym_int_type_name, 9449),
     (sym_sign_int_type_name, 2352), (sym_unsign_int_type_name, 2352), (sym_real_type_name, 9455),
     (sym_string_type_name, 9457), (sym_string_name, 2353), (sym_char_name, 2353),
     (sym_multibits_type_name, 9449), (sym_enum_value, 2089), (sym_direct_variable, 2060),
     (sym_ref_value, 2089), (sym_ref_addr, 2096), (sym_deref_expression, 2016),
     (sym_variable, 2054), (sym_var_access, 2016), (sym__expression, 3314),
     (sym_fold_expression, 2088), (sym_pack_element, 2088), (sym__primary_expression, 2088),
     (sym_parenthesized_expression, 2089), (sym_boolean_operator, 2088), (sym_or_operator, 2093),
     (sym_xor_operator, 2093), (sym_and_operator, 2093), (sym_comparison_operator, 2088),
     (sym_eq_operator, 2102), (sym_ord_operator, 2102), (sym_add_operator, 2088),
     (sym_mult_operator, 2088), (sym_power_operator, 2088), (sym_unary_operator, 2088),
     (sym_unary, 61), (sym_variable_access, 2089), (sym_func_call, 2089),
     (sym_begin_path_expression, 2049), (sym_invocation, 2044), (sym_any_invocation, 2043),
     (sym_this_invocation, 2019), (sym_super_invocation, 2019), (sym_super_body_invocation, 2043),
     (sym_path_expression, 2002), (sym_field_expression, 2016), (sym_index_expression, 2016),
     (sym_identifier, 35), (aux_sym_ERR_unexpected_this_in_path_token1, 37),
     (aux_sym_ERR_unexpected_super_in_path_token1, 39), (sym_line_comment, 3),
     (anon_sym_LPAREN, 43), (sym_unsigned_int, 47), (sym__explicit_signed_int, 47),
     (sym_binary_int, 49), (sym_octal_int, 49), (sym_hex_int, 51), (sym__explicit_signed_real, 53),
     (sym_real_value, 53), (aux_sym_bool_literal_with_string_token1, 55),
     (aux_sym_bool_literal_with_string_token2, 57), (aux_sym_bool_literal_with_string_token3, 57),
     (sym_s_byte_char_str, 59), (sym_d_byte_char_str, 59), (aux_sym_time_token1, 61),
     (anon_sym_PLUS, 63), (anon_sym_DASH, 63), (aux_sym_ltime_token1, 65), (aux_sym_tod_token1, 67),
     (aux_sym_ltod_token1, 69), (aux_sym_short_date_token1, 71), (aux_sym_long_date_token1, 73),
     (aux_sym_short_date_and_time_token1, 75), (aux_sym_long_date_and_time_token1, 77),
     (aux_sym_sign_int_type_name_token1, 79), (aux_sym_sign_int_type_name_token2, 79),
     (aux_sym_sign_int_type_name_token3, 79), (aux_sym_sign_int_type_name_token4, 79),
     (aux_sym_unsign_int_type_name_token1, 81), (aux_sym_unsign_int_type_name_token2, 81),
     (aux_sym_unsign_int_type_name_token3, 81), (aux_sym_unsign_int_type_name_token4, 81),
     (aux_sym_real_type_name_token1, 83), (aux_sym_real_type_name_token2, 83),
     (aux_sym_string_name_token1, 85), (aux_sym_char_name_token1, 87),
     (aux_sym_multibits_type_name_token1, 89), (aux_sym_multibits_type_name_token2, 89),
     (aux_sym_multibits_type_name_token3, 89), (aux_sym_multibits_type_name_token4, 89),
     (anon_sym_PERCENT, 91), (aux_sym_ref_value_token1, 93), (aux_sym_ref_addr_token1, 95),
     (anon_sym_DOT_DOT_DOT, 97), (aux_sym_unary_token1, 63), (sym_c_style_comment, 3),
     (sym_pascal_style_comment, 3), (sym_pragma, 3), (sym__minus_before_base, 99),
     (sym__plus_before_base, 99)]"

lemma ts_parse_row_53_scan: "row_scan tokens_4_1 0 ts_parse_row_53 = Some (Suc (Suc (Suc (Suc (Suc (Suc 0))))))"
  unfolding ts_parse_row_53_def by simp

text \<open>Lines 59775 to 59899.\<close>

definition ts_parse_row_54 :: parse_row where
  "ts_parse_row_54 =
    [(sym_ERR_unexpected_this_in_path, 2018), (sym_ERR_unexpected_super_in_path, 2018),
     (sym_constant, 2089), (sym_numeric_literal, 2090), (sym_int_literal, 2092),
     (sym_int_kind, 9320), (sym_signed_int, 2111), (sym_real_literal, 2092),
     (sym_signed_real_value, 2105), (sym_bool_literal, 2090), (sym_bool_literal_with_string, 2114),
     (sym_bool_literal_with_numeric, 2114), (sym_char_literal, 2090), (sym_char_str, 2120),
     (sym_time_literal, 2090), (sym_duration, 2123), (sym_time, 2087), (sym_ltime, 2087),
     (sym_time_of_day, 2123), (sym_tod, 2091), (sym_ltod, 2091), (sym_date, 2123),
     (sym_short_date, 2066), (sym_long_date, 2066), (sym_date_and_time, 2123),
     (sym_short_date_and_time, 2067), (sym_long_date_and_time, 2067), (sym_int_type_name, 9449),
     (sym_sign_int_type_name, 2352), (sym_unsign_int_type_name, 2352), (sym_real_type_name, 9455),
     (sym_string_type_name, 9457), (sym_string_name, 2353), (sym_char_name, 2353),
     (sym_multibits_type_name, 9449), (sym_enum_value, 2089), (sym_direct_variable, 2060),
     (sym_ref_value, 2089), (sym_ref_addr, 2096), (sym_deref_expression, 2016),
     (sym_variable, 2054), (sym_var_access, 2016), (sym__expression, 3315),
     (sym_fold_expression, 2088), (sym_pack_element, 2088), (sym__primary_expression, 2088),
     (sym_parenthesized_expression, 2089), (sym_boolean_operator, 2088), (sym_or_operator, 2093),
     (sym_xor_operator, 2093), (sym_and_operator, 2093), (sym_comparison_operator, 2088),
     (sym_eq_operator, 2102), (sym_ord_operator, 2102), (sym_add_operator, 2088),
     (sym_mult_operator, 2088), (sym_power_operator, 2088), (sym_unary_operator, 2088),
     (sym_unary, 61), (sym_variable_access, 2089), (sym_func_call, 2089),
     (sym_begin_path_expression, 2049), (sym_invocation, 2044), (sym_any_invocation, 2043),
     (sym_this_invocation, 2019), (sym_super_invocation, 2019), (sym_super_body_invocation, 2043),
     (sym_path_expression, 2002), (sym_field_expression, 2016), (sym_index_expression, 2016),
     (sym_identifier, 35), (aux_sym_ERR_unexpected_this_in_path_token1, 37),
     (aux_sym_ERR_unexpected_super_in_path_token1, 39), (sym_line_comment, 3),
     (anon_sym_LPAREN, 43), (sym_unsigned_int, 47), (sym__explicit_signed_int, 47),
     (sym_binary_int, 49), (sym_octal_int, 49), (sym_hex_int, 51), (sym__explicit_signed_real, 53),
     (sym_real_value, 53), (aux_sym_bool_literal_with_string_token1, 55),
     (aux_sym_bool_literal_with_string_token2, 57), (aux_sym_bool_literal_with_string_token3, 57),
     (sym_s_byte_char_str, 59), (sym_d_byte_char_str, 59), (aux_sym_time_token1, 61),
     (anon_sym_PLUS, 63), (anon_sym_DASH, 63), (aux_sym_ltime_token1, 65), (aux_sym_tod_token1, 67),
     (aux_sym_ltod_token1, 69), (aux_sym_short_date_token1, 71), (aux_sym_long_date_token1, 73),
     (aux_sym_short_date_and_time_token1, 75), (aux_sym_long_date_and_time_token1, 77),
     (aux_sym_sign_int_type_name_token1, 79), (aux_sym_sign_int_type_name_token2, 79),
     (aux_sym_sign_int_type_name_token3, 79), (aux_sym_sign_int_type_name_token4, 79),
     (aux_sym_unsign_int_type_name_token1, 81), (aux_sym_unsign_int_type_name_token2, 81),
     (aux_sym_unsign_int_type_name_token3, 81), (aux_sym_unsign_int_type_name_token4, 81),
     (aux_sym_real_type_name_token1, 83), (aux_sym_real_type_name_token2, 83),
     (aux_sym_string_name_token1, 85), (aux_sym_char_name_token1, 87),
     (aux_sym_multibits_type_name_token1, 89), (aux_sym_multibits_type_name_token2, 89),
     (aux_sym_multibits_type_name_token3, 89), (aux_sym_multibits_type_name_token4, 89),
     (anon_sym_PERCENT, 91), (aux_sym_ref_value_token1, 93), (aux_sym_ref_addr_token1, 95),
     (anon_sym_DOT_DOT_DOT, 97), (aux_sym_unary_token1, 63), (sym_c_style_comment, 3),
     (sym_pascal_style_comment, 3), (sym_pragma, 3), (sym__minus_before_base, 99),
     (sym__plus_before_base, 99)]"

lemma ts_parse_row_54_scan: "row_scan tokens_4_1 0 ts_parse_row_54 = Some (Suc (Suc (Suc (Suc (Suc (Suc 0))))))"
  unfolding ts_parse_row_54_def by simp

text \<open>Lines 59900 to 60024.\<close>

definition ts_parse_row_55 :: parse_row where
  "ts_parse_row_55 =
    [(sym_ERR_unexpected_this_in_path, 2018), (sym_ERR_unexpected_super_in_path, 2018),
     (sym_constant, 2089), (sym_numeric_literal, 2090), (sym_int_literal, 2092),
     (sym_int_kind, 9320), (sym_signed_int, 2111), (sym_real_literal, 2092),
     (sym_signed_real_value, 2105), (sym_bool_literal, 2090), (sym_bool_literal_with_string, 2114),
     (sym_bool_literal_with_numeric, 2114), (sym_char_literal, 2090), (sym_char_str, 2120),
     (sym_time_literal, 2090), (sym_duration, 2123), (sym_time, 2087), (sym_ltime, 2087),
     (sym_time_of_day, 2123), (sym_tod, 2091), (sym_ltod, 2091), (sym_date, 2123),
     (sym_short_date, 2066), (sym_long_date, 2066), (sym_date_and_time, 2123),
     (sym_short_date_and_time, 2067), (sym_long_date_and_time, 2067), (sym_int_type_name, 9449),
     (sym_sign_int_type_name, 2352), (sym_unsign_int_type_name, 2352), (sym_real_type_name, 9455),
     (sym_string_type_name, 9457), (sym_string_name, 2353), (sym_char_name, 2353),
     (sym_multibits_type_name, 9449), (sym_enum_value, 2089), (sym_direct_variable, 2060),
     (sym_ref_value, 2089), (sym_ref_addr, 2096), (sym_deref_expression, 2016),
     (sym_variable, 2054), (sym_var_access, 2016), (sym__expression, 2592),
     (sym_fold_expression, 2088), (sym_pack_element, 2088), (sym__primary_expression, 2088),
     (sym_parenthesized_expression, 2089), (sym_boolean_operator, 2088), (sym_or_operator, 2093),
     (sym_xor_operator, 2093), (sym_and_operator, 2093), (sym_comparison_operator, 2088),
     (sym_eq_operator, 2102), (sym_ord_operator, 2102), (sym_add_operator, 2088),
     (sym_mult_operator, 2088), (sym_power_operator, 2088), (sym_unary_operator, 2088),
     (sym_unary, 61), (sym_variable_access, 2089), (sym_func_call, 2089),
     (sym_begin_path_expression, 2049), (sym_invocation, 2044), (sym_any_invocation, 2043),
     (sym_this_invocation, 2019), (sym_super_invocation, 2019), (sym_super_body_invocation, 2043),
     (sym_path_expression, 2002), (sym_field_expression, 2016), (sym_index_expression, 2016),
     (sym_identifier, 35), (aux_sym_ERR_unexpected_this_in_path_token1, 37),
     (aux_sym_ERR_unexpected_super_in_path_token1, 39), (sym_line_comment, 3),
     (anon_sym_LPAREN, 43), (sym_unsigned_int, 47), (sym__explicit_signed_int, 47),
     (sym_binary_int, 49), (sym_octal_int, 49), (sym_hex_int, 51), (sym__explicit_signed_real, 53),
     (sym_real_value, 53), (aux_sym_bool_literal_with_string_token1, 55),
     (aux_sym_bool_literal_with_string_token2, 57), (aux_sym_bool_literal_with_string_token3, 57),
     (sym_s_byte_char_str, 59), (sym_d_byte_char_str, 59), (aux_sym_time_token1, 61),
     (anon_sym_PLUS, 63), (anon_sym_DASH, 63), (aux_sym_ltime_token1, 65), (aux_sym_tod_token1, 67),
     (aux_sym_ltod_token1, 69), (aux_sym_short_date_token1, 71), (aux_sym_long_date_token1, 73),
     (aux_sym_short_date_and_time_token1, 75), (aux_sym_long_date_and_time_token1, 77),
     (aux_sym_sign_int_type_name_token1, 79), (aux_sym_sign_int_type_name_token2, 79),
     (aux_sym_sign_int_type_name_token3, 79), (aux_sym_sign_int_type_name_token4, 79),
     (aux_sym_unsign_int_type_name_token1, 81), (aux_sym_unsign_int_type_name_token2, 81),
     (aux_sym_unsign_int_type_name_token3, 81), (aux_sym_unsign_int_type_name_token4, 81),
     (aux_sym_real_type_name_token1, 83), (aux_sym_real_type_name_token2, 83),
     (aux_sym_string_name_token1, 85), (aux_sym_char_name_token1, 87),
     (aux_sym_multibits_type_name_token1, 89), (aux_sym_multibits_type_name_token2, 89),
     (aux_sym_multibits_type_name_token3, 89), (aux_sym_multibits_type_name_token4, 89),
     (anon_sym_PERCENT, 91), (aux_sym_ref_value_token1, 93), (aux_sym_ref_addr_token1, 95),
     (anon_sym_DOT_DOT_DOT, 97), (aux_sym_unary_token1, 63), (sym_c_style_comment, 3),
     (sym_pascal_style_comment, 3), (sym_pragma, 3), (sym__minus_before_base, 99),
     (sym__plus_before_base, 99)]"

lemma ts_parse_row_55_scan: "row_scan tokens_4_1 0 ts_parse_row_55 = Some (Suc (Suc (Suc (Suc (Suc (Suc 0))))))"
  unfolding ts_parse_row_55_def by simp

text \<open>Lines 60025 to 60149.\<close>

definition ts_parse_row_56 :: parse_row where
  "ts_parse_row_56 =
    [(sym_ERR_unexpected_this_in_path, 2018), (sym_ERR_unexpected_super_in_path, 2018),
     (sym_constant, 2089), (sym_numeric_literal, 2090), (sym_int_literal, 2092),
     (sym_int_kind, 9320), (sym_signed_int, 2111), (sym_real_literal, 2092),
     (sym_signed_real_value, 2105), (sym_bool_literal, 2090), (sym_bool_literal_with_string, 2114),
     (sym_bool_literal_with_numeric, 2114), (sym_char_literal, 2090), (sym_char_str, 2120),
     (sym_time_literal, 2090), (sym_duration, 2123), (sym_time, 2087), (sym_ltime, 2087),
     (sym_time_of_day, 2123), (sym_tod, 2091), (sym_ltod, 2091), (sym_date, 2123),
     (sym_short_date, 2066), (sym_long_date, 2066), (sym_date_and_time, 2123),
     (sym_short_date_and_time, 2067), (sym_long_date_and_time, 2067), (sym_int_type_name, 9449),
     (sym_sign_int_type_name, 2352), (sym_unsign_int_type_name, 2352), (sym_real_type_name, 9455),
     (sym_string_type_name, 9457), (sym_string_name, 2353), (sym_char_name, 2353),
     (sym_multibits_type_name, 9449), (sym_enum_value, 2089), (sym_direct_variable, 2060),
     (sym_ref_value, 2089), (sym_ref_addr, 2096), (sym_deref_expression, 2016),
     (sym_variable, 2054), (sym_var_access, 2016), (sym__expression, 3324),
     (sym_fold_expression, 2088), (sym_pack_element, 2088), (sym__primary_expression, 2088),
     (sym_parenthesized_expression, 2089), (sym_boolean_operator, 2088), (sym_or_operator, 2093),
     (sym_xor_operator, 2093), (sym_and_operator, 2093), (sym_comparison_operator, 2088),
     (sym_eq_operator, 2102), (sym_ord_operator, 2102), (sym_add_operator, 2088),
     (sym_mult_operator, 2088), (sym_power_operator, 2088), (sym_unary_operator, 2088),
     (sym_unary, 61), (sym_variable_access, 2089), (sym_func_call, 2089),
     (sym_begin_path_expression, 2049), (sym_invocation, 2044), (sym_any_invocation, 2043),
     (sym_this_invocation, 2019), (sym_super_invocation, 2019), (sym_super_body_invocation, 2043),
     (sym_path_expression, 2002), (sym_field_expression, 2016), (sym_index_expression, 2016),
     (sym_identifier, 35), (aux_sym_ERR_unexpected_this_in_path_token1, 37),
     (aux_sym_ERR_unexpected_super_in_path_token1, 39), (sym_line_comment, 3),
     (anon_sym_LPAREN, 43), (sym_unsigned_int, 47), (sym__explicit_signed_int, 47),
     (sym_binary_int, 49), (sym_octal_int, 49), (sym_hex_int, 51), (sym__explicit_signed_real, 53),
     (sym_real_value, 53), (aux_sym_bool_literal_with_string_token1, 55),
     (aux_sym_bool_literal_with_string_token2, 57), (aux_sym_bool_literal_with_string_token3, 57),
     (sym_s_byte_char_str, 59), (sym_d_byte_char_str, 59), (aux_sym_time_token1, 61),
     (anon_sym_PLUS, 63), (anon_sym_DASH, 63), (aux_sym_ltime_token1, 65), (aux_sym_tod_token1, 67),
     (aux_sym_ltod_token1, 69), (aux_sym_short_date_token1, 71), (aux_sym_long_date_token1, 73),
     (aux_sym_short_date_and_time_token1, 75), (aux_sym_long_date_and_time_token1, 77),
     (aux_sym_sign_int_type_name_token1, 79), (aux_sym_sign_int_type_name_token2, 79),
     (aux_sym_sign_int_type_name_token3, 79), (aux_sym_sign_int_type_name_token4, 79),
     (aux_sym_unsign_int_type_name_token1, 81), (aux_sym_unsign_int_type_name_token2, 81),
     (aux_sym_unsign_int_type_name_token3, 81), (aux_sym_unsign_int_type_name_token4, 81),
     (aux_sym_real_type_name_token1, 83), (aux_sym_real_type_name_token2, 83),
     (aux_sym_string_name_token1, 85), (aux_sym_char_name_token1, 87),
     (aux_sym_multibits_type_name_token1, 89), (aux_sym_multibits_type_name_token2, 89),
     (aux_sym_multibits_type_name_token3, 89), (aux_sym_multibits_type_name_token4, 89),
     (anon_sym_PERCENT, 91), (aux_sym_ref_value_token1, 93), (aux_sym_ref_addr_token1, 95),
     (anon_sym_DOT_DOT_DOT, 97), (aux_sym_unary_token1, 63), (sym_c_style_comment, 3),
     (sym_pascal_style_comment, 3), (sym_pragma, 3), (sym__minus_before_base, 99),
     (sym__plus_before_base, 99)]"

lemma ts_parse_row_56_scan: "row_scan tokens_4_1 0 ts_parse_row_56 = Some (Suc (Suc (Suc (Suc (Suc (Suc 0))))))"
  unfolding ts_parse_row_56_def by simp

text \<open>Lines 60150 to 60274.\<close>

definition ts_parse_row_57 :: parse_row where
  "ts_parse_row_57 =
    [(sym_ERR_unexpected_this_in_path, 2018), (sym_ERR_unexpected_super_in_path, 2018),
     (sym_constant, 2089), (sym_numeric_literal, 2090), (sym_int_literal, 2092),
     (sym_int_kind, 9320), (sym_signed_int, 2111), (sym_real_literal, 2092),
     (sym_signed_real_value, 2105), (sym_bool_literal, 2090), (sym_bool_literal_with_string, 2114),
     (sym_bool_literal_with_numeric, 2114), (sym_char_literal, 2090), (sym_char_str, 2120),
     (sym_time_literal, 2090), (sym_duration, 2123), (sym_time, 2087), (sym_ltime, 2087),
     (sym_time_of_day, 2123), (sym_tod, 2091), (sym_ltod, 2091), (sym_date, 2123),
     (sym_short_date, 2066), (sym_long_date, 2066), (sym_date_and_time, 2123),
     (sym_short_date_and_time, 2067), (sym_long_date_and_time, 2067), (sym_int_type_name, 9449),
     (sym_sign_int_type_name, 2352), (sym_unsign_int_type_name, 2352), (sym_real_type_name, 9455),
     (sym_string_type_name, 9457), (sym_string_name, 2353), (sym_char_name, 2353),
     (sym_multibits_type_name, 9449), (sym_enum_value, 2089), (sym_direct_variable, 2060),
     (sym_ref_value, 2089), (sym_ref_addr, 2096), (sym_deref_expression, 2016),
     (sym_variable, 2054), (sym_var_access, 2016), (sym__expression, 2644),
     (sym_fold_expression, 2088), (sym_pack_element, 2088), (sym__primary_expression, 2088),
     (sym_parenthesized_expression, 2089), (sym_boolean_operator, 2088), (sym_or_operator, 2093),
     (sym_xor_operator, 2093), (sym_and_operator, 2093), (sym_comparison_operator, 2088),
     (sym_eq_operator, 2102), (sym_ord_operator, 2102), (sym_add_operator, 2088),
     (sym_mult_operator, 2088), (sym_power_operator, 2088), (sym_unary_operator, 2088),
     (sym_unary, 61), (sym_variable_access, 2089), (sym_func_call, 2089),
     (sym_begin_path_expression, 2049), (sym_invocation, 2044), (sym_any_invocation, 2043),
     (sym_this_invocation, 2019), (sym_super_invocation, 2019), (sym_super_body_invocation, 2043),
     (sym_path_expression, 2002), (sym_field_expression, 2016), (sym_index_expression, 2016),
     (sym_identifier, 35), (aux_sym_ERR_unexpected_this_in_path_token1, 37),
     (aux_sym_ERR_unexpected_super_in_path_token1, 39), (sym_line_comment, 3),
     (anon_sym_LPAREN, 43), (sym_unsigned_int, 47), (sym__explicit_signed_int, 47),
     (sym_binary_int, 49), (sym_octal_int, 49), (sym_hex_int, 51), (sym__explicit_signed_real, 53),
     (sym_real_value, 53), (aux_sym_bool_literal_with_string_token1, 55),
     (aux_sym_bool_literal_with_string_token2, 57), (aux_sym_bool_literal_with_string_token3, 57),
     (sym_s_byte_char_str, 59), (sym_d_byte_char_str, 59), (aux_sym_time_token1, 61),
     (anon_sym_PLUS, 63), (anon_sym_DASH, 63), (aux_sym_ltime_token1, 65), (aux_sym_tod_token1, 67),
     (aux_sym_ltod_token1, 69), (aux_sym_short_date_token1, 71), (aux_sym_long_date_token1, 73),
     (aux_sym_short_date_and_time_token1, 75), (aux_sym_long_date_and_time_token1, 77),
     (aux_sym_sign_int_type_name_token1, 79), (aux_sym_sign_int_type_name_token2, 79),
     (aux_sym_sign_int_type_name_token3, 79), (aux_sym_sign_int_type_name_token4, 79),
     (aux_sym_unsign_int_type_name_token1, 81), (aux_sym_unsign_int_type_name_token2, 81),
     (aux_sym_unsign_int_type_name_token3, 81), (aux_sym_unsign_int_type_name_token4, 81),
     (aux_sym_real_type_name_token1, 83), (aux_sym_real_type_name_token2, 83),
     (aux_sym_string_name_token1, 85), (aux_sym_char_name_token1, 87),
     (aux_sym_multibits_type_name_token1, 89), (aux_sym_multibits_type_name_token2, 89),
     (aux_sym_multibits_type_name_token3, 89), (aux_sym_multibits_type_name_token4, 89),
     (anon_sym_PERCENT, 91), (aux_sym_ref_value_token1, 93), (aux_sym_ref_addr_token1, 95),
     (anon_sym_DOT_DOT_DOT, 97), (aux_sym_unary_token1, 63), (sym_c_style_comment, 3),
     (sym_pascal_style_comment, 3), (sym_pragma, 3), (sym__minus_before_base, 99),
     (sym__plus_before_base, 99)]"

lemma ts_parse_row_57_scan: "row_scan tokens_4_1 0 ts_parse_row_57 = Some (Suc (Suc (Suc (Suc (Suc (Suc 0))))))"
  unfolding ts_parse_row_57_def by simp

text \<open>Lines 60275 to 60399.\<close>

definition ts_parse_row_58 :: parse_row where
  "ts_parse_row_58 =
    [(sym_ERR_unexpected_this_in_path, 2018), (sym_ERR_unexpected_super_in_path, 2018),
     (sym_constant, 2089), (sym_numeric_literal, 2090), (sym_int_literal, 2092),
     (sym_int_kind, 9320), (sym_signed_int, 2111), (sym_real_literal, 2092),
     (sym_signed_real_value, 2105), (sym_bool_literal, 2090), (sym_bool_literal_with_string, 2114),
     (sym_bool_literal_with_numeric, 2114), (sym_char_literal, 2090), (sym_char_str, 2120),
     (sym_time_literal, 2090), (sym_duration, 2123), (sym_time, 2087), (sym_ltime, 2087),
     (sym_time_of_day, 2123), (sym_tod, 2091), (sym_ltod, 2091), (sym_date, 2123),
     (sym_short_date, 2066), (sym_long_date, 2066), (sym_date_and_time, 2123),
     (sym_short_date_and_time, 2067), (sym_long_date_and_time, 2067), (sym_int_type_name, 9449),
     (sym_sign_int_type_name, 2352), (sym_unsign_int_type_name, 2352), (sym_real_type_name, 9455),
     (sym_string_type_name, 9457), (sym_string_name, 2353), (sym_char_name, 2353),
     (sym_multibits_type_name, 9449), (sym_enum_value, 2089), (sym_direct_variable, 2060),
     (sym_ref_value, 2089), (sym_ref_addr, 2096), (sym_deref_expression, 2016),
     (sym_variable, 2054), (sym_var_access, 2016), (sym__expression, 3337),
     (sym_fold_expression, 2088), (sym_pack_element, 2088), (sym__primary_expression, 2088),
     (sym_parenthesized_expression, 2089), (sym_boolean_operator, 2088), (sym_or_operator, 2093),
     (sym_xor_operator, 2093), (sym_and_operator, 2093), (sym_comparison_operator, 2088),
     (sym_eq_operator, 2102), (sym_ord_operator, 2102), (sym_add_operator, 2088),
     (sym_mult_operator, 2088), (sym_power_operator, 2088), (sym_unary_operator, 2088),
     (sym_unary, 61), (sym_variable_access, 2089), (sym_func_call, 2089),
     (sym_begin_path_expression, 2049), (sym_invocation, 2044), (sym_any_invocation, 2043),
     (sym_this_invocation, 2019), (sym_super_invocation, 2019), (sym_super_body_invocation, 2043),
     (sym_path_expression, 2002), (sym_field_expression, 2016), (sym_index_expression, 2016),
     (sym_identifier, 35), (aux_sym_ERR_unexpected_this_in_path_token1, 37),
     (aux_sym_ERR_unexpected_super_in_path_token1, 39), (sym_line_comment, 3),
     (anon_sym_LPAREN, 43), (sym_unsigned_int, 47), (sym__explicit_signed_int, 47),
     (sym_binary_int, 49), (sym_octal_int, 49), (sym_hex_int, 51), (sym__explicit_signed_real, 53),
     (sym_real_value, 53), (aux_sym_bool_literal_with_string_token1, 55),
     (aux_sym_bool_literal_with_string_token2, 57), (aux_sym_bool_literal_with_string_token3, 57),
     (sym_s_byte_char_str, 59), (sym_d_byte_char_str, 59), (aux_sym_time_token1, 61),
     (anon_sym_PLUS, 63), (anon_sym_DASH, 63), (aux_sym_ltime_token1, 65), (aux_sym_tod_token1, 67),
     (aux_sym_ltod_token1, 69), (aux_sym_short_date_token1, 71), (aux_sym_long_date_token1, 73),
     (aux_sym_short_date_and_time_token1, 75), (aux_sym_long_date_and_time_token1, 77),
     (aux_sym_sign_int_type_name_token1, 79), (aux_sym_sign_int_type_name_token2, 79),
     (aux_sym_sign_int_type_name_token3, 79), (aux_sym_sign_int_type_name_token4, 79),
     (aux_sym_unsign_int_type_name_token1, 81), (aux_sym_unsign_int_type_name_token2, 81),
     (aux_sym_unsign_int_type_name_token3, 81), (aux_sym_unsign_int_type_name_token4, 81),
     (aux_sym_real_type_name_token1, 83), (aux_sym_real_type_name_token2, 83),
     (aux_sym_string_name_token1, 85), (aux_sym_char_name_token1, 87),
     (aux_sym_multibits_type_name_token1, 89), (aux_sym_multibits_type_name_token2, 89),
     (aux_sym_multibits_type_name_token3, 89), (aux_sym_multibits_type_name_token4, 89),
     (anon_sym_PERCENT, 91), (aux_sym_ref_value_token1, 93), (aux_sym_ref_addr_token1, 95),
     (anon_sym_DOT_DOT_DOT, 97), (aux_sym_unary_token1, 63), (sym_c_style_comment, 3),
     (sym_pascal_style_comment, 3), (sym_pragma, 3), (sym__minus_before_base, 99),
     (sym__plus_before_base, 99)]"

lemma ts_parse_row_58_scan: "row_scan tokens_4_1 0 ts_parse_row_58 = Some (Suc (Suc (Suc (Suc (Suc (Suc 0))))))"
  unfolding ts_parse_row_58_def by simp

text \<open>Lines 60400 to 60524.\<close>

definition ts_parse_row_59 :: parse_row where
  "ts_parse_row_59 =
    [(sym_ERR_unexpected_this_in_path, 2018), (sym_ERR_unexpected_super_in_path, 2018),
     (sym_constant, 2089), (sym_numeric_literal, 2090), (sym_int_literal, 2092),
     (sym_int_kind, 9320), (sym_signed_int, 2111), (sym_real_literal, 2092),
     (sym_signed_real_value, 2105), (sym_bool_literal, 2090), (sym_bool_literal_with_string, 2114),
     (sym_bool_literal_with_numeric, 2114), (sym_char_literal, 2090), (sym_char_str, 2120),
     (sym_time_literal, 2090), (sym_duration, 2123), (sym_time, 2087), (sym_ltime, 2087),
     (sym_time_of_day, 2123), (sym_tod, 2091), (sym_ltod, 2091), (sym_date, 2123),
     (sym_short_date, 2066), (sym_long_date, 2066), (sym_date_and_time, 2123),
     (sym_short_date_and_time, 2067), (sym_long_date_and_time, 2067), (sym_int_type_name, 9449),
     (sym_sign_int_type_name, 2352), (sym_unsign_int_type_name, 2352), (sym_real_type_name, 9455),
     (sym_string_type_name, 9457), (sym_string_name, 2353), (sym_char_name, 2353),
     (sym_multibits_type_name, 9449), (sym_enum_value, 2089), (sym_direct_variable, 2060),
     (sym_ref_value, 2089), (sym_ref_addr, 2096), (sym_deref_expression, 2016),
     (sym_variable, 2054), (sym_var_access, 2016), (sym__expression, 3322),
     (sym_fold_expression, 2088), (sym_pack_element, 2088), (sym__primary_expression, 2088),
     (sym_parenthesized_expression, 2089), (sym_boolean_operator, 2088), (sym_or_operator, 2093),
     (sym_xor_operator, 2093), (sym_and_operator, 2093), (sym_comparison_operator, 2088),
     (sym_eq_operator, 2102), (sym_ord_operator, 2102), (sym_add_operator, 2088),
     (sym_mult_operator, 2088), (sym_power_operator, 2088), (sym_unary_operator, 2088),
     (sym_unary, 61), (sym_variable_access, 2089), (sym_func_call, 2089),
     (sym_begin_path_expression, 2049), (sym_invocation, 2044), (sym_any_invocation, 2043),
     (sym_this_invocation, 2019), (sym_super_invocation, 2019), (sym_super_body_invocation, 2043),
     (sym_path_expression, 2002), (sym_field_expression, 2016), (sym_index_expression, 2016),
     (sym_identifier, 35), (aux_sym_ERR_unexpected_this_in_path_token1, 37),
     (aux_sym_ERR_unexpected_super_in_path_token1, 39), (sym_line_comment, 3),
     (anon_sym_LPAREN, 43), (sym_unsigned_int, 47), (sym__explicit_signed_int, 47),
     (sym_binary_int, 49), (sym_octal_int, 49), (sym_hex_int, 51), (sym__explicit_signed_real, 53),
     (sym_real_value, 53), (aux_sym_bool_literal_with_string_token1, 55),
     (aux_sym_bool_literal_with_string_token2, 57), (aux_sym_bool_literal_with_string_token3, 57),
     (sym_s_byte_char_str, 59), (sym_d_byte_char_str, 59), (aux_sym_time_token1, 61),
     (anon_sym_PLUS, 63), (anon_sym_DASH, 63), (aux_sym_ltime_token1, 65), (aux_sym_tod_token1, 67),
     (aux_sym_ltod_token1, 69), (aux_sym_short_date_token1, 71), (aux_sym_long_date_token1, 73),
     (aux_sym_short_date_and_time_token1, 75), (aux_sym_long_date_and_time_token1, 77),
     (aux_sym_sign_int_type_name_token1, 79), (aux_sym_sign_int_type_name_token2, 79),
     (aux_sym_sign_int_type_name_token3, 79), (aux_sym_sign_int_type_name_token4, 79),
     (aux_sym_unsign_int_type_name_token1, 81), (aux_sym_unsign_int_type_name_token2, 81),
     (aux_sym_unsign_int_type_name_token3, 81), (aux_sym_unsign_int_type_name_token4, 81),
     (aux_sym_real_type_name_token1, 83), (aux_sym_real_type_name_token2, 83),
     (aux_sym_string_name_token1, 85), (aux_sym_char_name_token1, 87),
     (aux_sym_multibits_type_name_token1, 89), (aux_sym_multibits_type_name_token2, 89),
     (aux_sym_multibits_type_name_token3, 89), (aux_sym_multibits_type_name_token4, 89),
     (anon_sym_PERCENT, 91), (aux_sym_ref_value_token1, 93), (aux_sym_ref_addr_token1, 95),
     (anon_sym_DOT_DOT_DOT, 97), (aux_sym_unary_token1, 63), (sym_c_style_comment, 3),
     (sym_pascal_style_comment, 3), (sym_pragma, 3), (sym__minus_before_base, 99),
     (sym__plus_before_base, 99)]"

lemma ts_parse_row_59_scan: "row_scan tokens_4_1 0 ts_parse_row_59 = Some (Suc (Suc (Suc (Suc (Suc (Suc 0))))))"
  unfolding ts_parse_row_59_def by simp

text \<open>Lines 60525 to 60649.\<close>

definition ts_parse_row_60 :: parse_row where
  "ts_parse_row_60 =
    [(sym_ERR_unexpected_this_in_path, 1132), (sym_ERR_unexpected_super_in_path, 1132),
     (sym_constant, 1189), (sym_numeric_literal, 1180), (sym_int_literal, 1182),
     (sym_int_kind, 10047), (sym_signed_int, 1200), (sym_real_literal, 1182),
     (sym_signed_real_value, 1183), (sym_bool_literal, 1180), (sym_bool_literal_with_string, 1185),
     (sym_bool_literal_with_numeric, 1185), (sym_char_literal, 1180), (sym_char_str, 1187),
     (sym_time_literal, 1180), (sym_duration, 1169), (sym_time, 1191), (sym_ltime, 1191),
     (sym_time_of_day, 1169), (sym_tod, 1192), (sym_ltod, 1192), (sym_date, 1169),
     (sym_short_date, 1193), (sym_long_date, 1193), (sym_date_and_time, 1169),
     (sym_short_date_and_time, 1194), (sym_long_date_and_time, 1194), (sym_int_type_name, 9449),
     (sym_sign_int_type_name, 2352), (sym_unsign_int_type_name, 2352), (sym_real_type_name, 10048),
     (sym_string_type_name, 10049), (sym_string_name, 2353), (sym_char_name, 2353),
     (sym_multibits_type_name, 9449), (sym_enum_value, 1189), (sym_direct_variable, 1149),
     (sym_ref_value, 1189), (sym_ref_addr, 1164), (sym_deref_expression, 1130),
     (sym_variable, 1146), (sym_var_access, 1130), (sym__expression, 1115),
     (sym_fold_expression, 1195), (sym_pack_element, 1195), (sym__primary_expression, 1195),
     (sym_parenthesized_expression, 1189), (sym_boolean_operator, 1195), (sym_or_operator, 1196),
     (sym_xor_operator, 1196), (sym_and_operator, 1196), (sym_comparison_operator, 1195),
     (sym_eq_operator, 1197), (sym_ord_operator, 1197), (sym_add_operator, 1195),
     (sym_mult_operator, 1195), (sym_power_operator, 1195), (sym_unary_operator, 1195),
     (sym_unary, 60), (sym_variable_access, 1189), (sym_func_call, 1189),
     (sym_begin_path_expression, 1138), (sym_invocation, 1145), (sym_any_invocation, 1139),
     (sym_this_invocation, 1136), (sym_super_invocation, 1136), (sym_super_body_invocation, 1139),
     (sym_path_expression, 1109), (sym_field_expression, 1130), (sym_index_expression, 1130),
     (sym_identifier, 101), (aux_sym_ERR_unexpected_this_in_path_token1, 103),
     (aux_sym_ERR_unexpected_super_in_path_token1, 105), (sym_line_comment, 3),
     (anon_sym_LPAREN, 107), (sym_unsigned_int, 109), (sym__explicit_signed_int, 109),
     (sym_binary_int, 111), (sym_octal_int, 111), (sym_hex_int, 113),
     (sym__explicit_signed_real, 115), (sym_real_value, 115),
     (aux_sym_bool_literal_with_string_token1, 117), (aux_sym_bool_literal_with_string_token2, 119),
     (aux_sym_bool_literal_with_string_token3, 119), (sym_s_byte_char_str, 121),
     (sym_d_byte_char_str, 121), (aux_sym_time_token1, 123), (anon_sym_PLUS, 63),
     (anon_sym_DASH, 63), (aux_sym_ltime_token1, 125), (aux_sym_tod_token1, 127),
     (aux_sym_ltod_token1, 129), (aux_sym_short_date_token1, 131), (aux_sym_long_date_token1, 133),
     (aux_sym_short_date_and_time_token1, 135), (aux_sym_long_date_and_time_token1, 137),
     (aux_sym_sign_int_type_name_token1, 79), (aux_sym_sign_int_type_name_token2, 79),
     (aux_sym_sign_int_type_name_token3, 79), (aux_sym_sign_int_type_name_token4, 79),
     (aux_sym_unsign_int_type_name_token1, 81), (aux_sym_unsign_int_type_name_token2, 81),
     (aux_sym_unsign_int_type_name_token3, 81), (aux_sym_unsign_int_type_name_token4, 81),
     (aux_sym_real_type_name_token1, 83), (aux_sym_real_type_name_token2, 83),
     (aux_sym_string_name_token1, 85), (aux_sym_char_name_token1, 87),
     (aux_sym_multibits_type_name_token1, 89), (aux_sym_multibits_type_name_token2, 89),
     (aux_sym_multibits_type_name_token3, 89), (aux_sym_multibits_type_name_token4, 89),
     (anon_sym_PERCENT, 139), (aux_sym_ref_value_token1, 141), (aux_sym_ref_addr_token1, 143),
     (anon_sym_DOT_DOT_DOT, 145), (aux_sym_unary_token1, 63), (sym_c_style_comment, 3),
     (sym_pascal_style_comment, 3), (sym_pragma, 3), (sym__minus_before_base, 99),
     (sym__plus_before_base, 99)]"

lemma ts_parse_row_60_scan: "row_scan tokens_4_1 0 ts_parse_row_60 = Some (Suc (Suc (Suc (Suc (Suc (Suc 0))))))"
  unfolding ts_parse_row_60_def by simp

text \<open>Lines 60650 to 60774.\<close>

definition ts_parse_row_61 :: parse_row where
  "ts_parse_row_61 =
    [(sym_ERR_unexpected_this_in_path, 2018), (sym_ERR_unexpected_super_in_path, 2018),
     (sym_constant, 2089), (sym_numeric_literal, 2090), (sym_int_literal, 2092),
     (sym_int_kind, 9320), (sym_signed_int, 2111), (sym_real_literal, 2092),
     (sym_signed_real_value, 2105), (sym_bool_literal, 2090), (sym_bool_literal_with_string, 2114),
     (sym_bool_literal_with_numeric, 2114), (sym_char_literal, 2090), (sym_char_str, 2120),
     (sym_time_literal, 2090), (sym_duration, 2123), (sym_time, 2087), (sym_ltime, 2087),
     (sym_time_of_day, 2123), (sym_tod, 2091), (sym_ltod, 2091), (sym_date, 2123),
     (sym_short_date, 2066), (sym_long_date, 2066), (sym_date_and_time, 2123),
     (sym_short_date_and_time, 2067), (sym_long_date_and_time, 2067), (sym_int_type_name, 9449),
     (sym_sign_int_type_name, 2352), (sym_unsign_int_type_name, 2352), (sym_real_type_name, 9455),
     (sym_string_type_name, 9457), (sym_string_name, 2353), (sym_char_name, 2353),
     (sym_multibits_type_name, 9449), (sym_enum_value, 2089), (sym_direct_variable, 2060),
     (sym_ref_value, 2089), (sym_ref_addr, 2096), (sym_deref_expression, 2016),
     (sym_variable, 2054), (sym_var_access, 2016), (sym__expression, 2042),
     (sym_fold_expression, 2088), (sym_pack_element, 2088), (sym__primary_expression, 2088),
     (sym_parenthesized_expression, 2089), (sym_boolean_operator, 2088), (sym_or_operator, 2093),
     (sym_xor_operator, 2093), (sym_and_operator, 2093), (sym_comparison_operator, 2088),
     (sym_eq_operator, 2102), (sym_ord_operator, 2102), (sym_add_operator, 2088),
     (sym_mult_operator, 2088), (sym_power_operator, 2088), (sym_unary_operator, 2088),
     (sym_unary, 61), (sym_variable_access, 2089), (sym_func_call, 2089),
     (sym_begin_path_expression, 2049), (sym_invocation, 2044), (sym_any_invocation, 2043),
     (sym_this_invocation, 2019), (sym_super_invocation, 2019), (sym_super_body_invocation, 2043),
     (sym_path_expression, 2002), (sym_field_expression, 2016), (sym_index_expression, 2016),
     (sym_identifier, 35), (aux_sym_ERR_unexpected_this_in_path_token1, 37),
     (aux_sym_ERR_unexpected_super_in_path_token1, 39), (sym_line_comment, 3),
     (anon_sym_LPAREN, 43), (sym_unsigned_int, 47), (sym__explicit_signed_int, 47),
     (sym_binary_int, 49), (sym_octal_int, 49), (sym_hex_int, 51), (sym__explicit_signed_real, 53),
     (sym_real_value, 53), (aux_sym_bool_literal_with_string_token1, 55),
     (aux_sym_bool_literal_with_string_token2, 57), (aux_sym_bool_literal_with_string_token3, 57),
     (sym_s_byte_char_str, 59), (sym_d_byte_char_str, 59), (aux_sym_time_token1, 61),
     (anon_sym_PLUS, 63), (anon_sym_DASH, 63), (aux_sym_ltime_token1, 65), (aux_sym_tod_token1, 67),
     (aux_sym_ltod_token1, 69), (aux_sym_short_date_token1, 71), (aux_sym_long_date_token1, 73),
     (aux_sym_short_date_and_time_token1, 75), (aux_sym_long_date_and_time_token1, 77),
     (aux_sym_sign_int_type_name_token1, 79), (aux_sym_sign_int_type_name_token2, 79),
     (aux_sym_sign_int_type_name_token3, 79), (aux_sym_sign_int_type_name_token4, 79),
     (aux_sym_unsign_int_type_name_token1, 81), (aux_sym_unsign_int_type_name_token2, 81),
     (aux_sym_unsign_int_type_name_token3, 81), (aux_sym_unsign_int_type_name_token4, 81),
     (aux_sym_real_type_name_token1, 83), (aux_sym_real_type_name_token2, 83),
     (aux_sym_string_name_token1, 85), (aux_sym_char_name_token1, 87),
     (aux_sym_multibits_type_name_token1, 89), (aux_sym_multibits_type_name_token2, 89),
     (aux_sym_multibits_type_name_token3, 89), (aux_sym_multibits_type_name_token4, 89),
     (anon_sym_PERCENT, 91), (aux_sym_ref_value_token1, 93), (aux_sym_ref_addr_token1, 95),
     (anon_sym_DOT_DOT_DOT, 97), (aux_sym_unary_token1, 63), (sym_c_style_comment, 3),
     (sym_pascal_style_comment, 3), (sym_pragma, 3), (sym__minus_before_base, 99),
     (sym__plus_before_base, 99)]"

lemma ts_parse_row_61_scan: "row_scan tokens_4_1 0 ts_parse_row_61 = Some (Suc (Suc (Suc (Suc (Suc (Suc 0))))))"
  unfolding ts_parse_row_61_def by simp

text \<open>Lines 60775 to 60899.\<close>

definition ts_parse_row_62 :: parse_row where
  "ts_parse_row_62 =
    [(sym_ERR_unexpected_this_in_path, 1132), (sym_ERR_unexpected_super_in_path, 1132),
     (sym_constant, 1189), (sym_numeric_literal, 1180), (sym_int_literal, 1182),
     (sym_int_kind, 10047), (sym_signed_int, 1200), (sym_real_literal, 1182),
     (sym_signed_real_value, 1183), (sym_bool_literal, 1180), (sym_bool_literal_with_string, 1185),
     (sym_bool_literal_with_numeric, 1185), (sym_char_literal, 1180), (sym_char_str, 1187),
     (sym_time_literal, 1180), (sym_duration, 1169), (sym_time, 1191), (sym_ltime, 1191),
     (sym_time_of_day, 1169), (sym_tod, 1192), (sym_ltod, 1192), (sym_date, 1169),
     (sym_short_date, 1193), (sym_long_date, 1193), (sym_date_and_time, 1169),
     (sym_short_date_and_time, 1194), (sym_long_date_and_time, 1194), (sym_int_type_name, 9449),
     (sym_sign_int_type_name, 2352), (sym_unsign_int_type_name, 2352), (sym_real_type_name, 10048),
     (sym_string_type_name, 10049), (sym_string_name, 2353), (sym_char_name, 2353),
     (sym_multibits_type_name, 9449), (sym_enum_value, 1189), (sym_direct_variable, 1149),
     (sym_ref_value, 1189), (sym_ref_addr, 1164), (sym_deref_expression, 1130),
     (sym_variable, 1146), (sym_var_access, 1130), (sym__expression, 1117),
     (sym_fold_expression, 1195), (sym_pack_element, 1195), (sym__primary_expression, 1195),
     (sym_parenthesized_expression, 1189), (sym_boolean_operator, 1195), (sym_or_operator, 1196),
     (sym_xor_operator, 1196), (sym_and_operator, 1196), (sym_comparison_operator, 1195),
     (sym_eq_operator, 1197), (sym_ord_operator, 1197), (sym_add_operator, 1195),
     (sym_mult_operator, 1195), (sym_power_operator, 1195), (sym_unary_operator, 1195),
     (sym_unary, 60), (sym_variable_access, 1189), (sym_func_call, 1189),
     (sym_begin_path_expression, 1138), (sym_invocation, 1145), (sym_any_invocation, 1139),
     (sym_this_invocation, 1136), (sym_super_invocation, 1136), (sym_super_body_invocation, 1139),
     (sym_path_expression, 1109), (sym_field_expression, 1130), (sym_index_expression, 1130),
     (sym_identifier, 101), (aux_sym_ERR_unexpected_this_in_path_token1, 103),
     (aux_sym_ERR_unexpected_super_in_path_token1, 105), (sym_line_comment, 3),
     (anon_sym_LPAREN, 107), (sym_unsigned_int, 109), (sym__explicit_signed_int, 109),
     (sym_binary_int, 111), (sym_octal_int, 111), (sym_hex_int, 113),
     (sym__explicit_signed_real, 115), (sym_real_value, 115),
     (aux_sym_bool_literal_with_string_token1, 117), (aux_sym_bool_literal_with_string_token2, 119),
     (aux_sym_bool_literal_with_string_token3, 119), (sym_s_byte_char_str, 121),
     (sym_d_byte_char_str, 121), (aux_sym_time_token1, 123), (anon_sym_PLUS, 63),
     (anon_sym_DASH, 63), (aux_sym_ltime_token1, 125), (aux_sym_tod_token1, 127),
     (aux_sym_ltod_token1, 129), (aux_sym_short_date_token1, 131), (aux_sym_long_date_token1, 133),
     (aux_sym_short_date_and_time_token1, 135), (aux_sym_long_date_and_time_token1, 137),
     (aux_sym_sign_int_type_name_token1, 79), (aux_sym_sign_int_type_name_token2, 79),
     (aux_sym_sign_int_type_name_token3, 79), (aux_sym_sign_int_type_name_token4, 79),
     (aux_sym_unsign_int_type_name_token1, 81), (aux_sym_unsign_int_type_name_token2, 81),
     (aux_sym_unsign_int_type_name_token3, 81), (aux_sym_unsign_int_type_name_token4, 81),
     (aux_sym_real_type_name_token1, 83), (aux_sym_real_type_name_token2, 83),
     (aux_sym_string_name_token1, 85), (aux_sym_char_name_token1, 87),
     (aux_sym_multibits_type_name_token1, 89), (aux_sym_multibits_type_name_token2, 89),
     (aux_sym_multibits_type_name_token3, 89), (aux_sym_multibits_type_name_token4, 89),
     (anon_sym_PERCENT, 139), (aux_sym_ref_value_token1, 141), (aux_sym_ref_addr_token1, 143),
     (anon_sym_DOT_DOT_DOT, 145), (aux_sym_unary_token1, 63), (sym_c_style_comment, 3),
     (sym_pascal_style_comment, 3), (sym_pragma, 3), (sym__minus_before_base, 99),
     (sym__plus_before_base, 99)]"

lemma ts_parse_row_62_scan: "row_scan tokens_4_1 0 ts_parse_row_62 = Some (Suc (Suc (Suc (Suc (Suc (Suc 0))))))"
  unfolding ts_parse_row_62_def by simp

text \<open>Lines 60900 to 61024.\<close>

definition ts_parse_row_63 :: parse_row where
  "ts_parse_row_63 =
    [(sym_ERR_unexpected_this_in_path, 1132), (sym_ERR_unexpected_super_in_path, 1132),
     (sym_constant, 1189), (sym_numeric_literal, 1180), (sym_int_literal, 1182),
     (sym_int_kind, 10047), (sym_signed_int, 1200), (sym_real_literal, 1182),
     (sym_signed_real_value, 1183), (sym_bool_literal, 1180), (sym_bool_literal_with_string, 1185),
     (sym_bool_literal_with_numeric, 1185), (sym_char_literal, 1180), (sym_char_str, 1187),
     (sym_time_literal, 1180), (sym_duration, 1169), (sym_time, 1191), (sym_ltime, 1191),
     (sym_time_of_day, 1169), (sym_tod, 1192), (sym_ltod, 1192), (sym_date, 1169),
     (sym_short_date, 1193), (sym_long_date, 1193), (sym_date_and_time, 1169),
     (sym_short_date_and_time, 1194), (sym_long_date_and_time, 1194), (sym_int_type_name, 9449),
     (sym_sign_int_type_name, 2352), (sym_unsign_int_type_name, 2352), (sym_real_type_name, 10048),
     (sym_string_type_name, 10049), (sym_string_name, 2353), (sym_char_name, 2353),
     (sym_multibits_type_name, 9449), (sym_enum_value, 1189), (sym_direct_variable, 1149),
     (sym_ref_value, 1189), (sym_ref_addr, 1164), (sym_deref_expression, 1130),
     (sym_variable, 1146), (sym_var_access, 1130), (sym__expression, 1118),
     (sym_fold_expression, 1195), (sym_pack_element, 1195), (sym__primary_expression, 1195),
     (sym_parenthesized_expression, 1189), (sym_boolean_operator, 1195), (sym_or_operator, 1196),
     (sym_xor_operator, 1196), (sym_and_operator, 1196), (sym_comparison_operator, 1195),
     (sym_eq_operator, 1197), (sym_ord_operator, 1197), (sym_add_operator, 1195),
     (sym_mult_operator, 1195), (sym_power_operator, 1195), (sym_unary_operator, 1195),
     (sym_unary, 60), (sym_variable_access, 1189), (sym_func_call, 1189),
     (sym_begin_path_expression, 1138), (sym_invocation, 1145), (sym_any_invocation, 1139),
     (sym_this_invocation, 1136), (sym_super_invocation, 1136), (sym_super_body_invocation, 1139),
     (sym_path_expression, 1109), (sym_field_expression, 1130), (sym_index_expression, 1130),
     (sym_identifier, 101), (aux_sym_ERR_unexpected_this_in_path_token1, 103),
     (aux_sym_ERR_unexpected_super_in_path_token1, 105), (sym_line_comment, 3),
     (anon_sym_LPAREN, 107), (sym_unsigned_int, 109), (sym__explicit_signed_int, 109),
     (sym_binary_int, 111), (sym_octal_int, 111), (sym_hex_int, 113),
     (sym__explicit_signed_real, 115), (sym_real_value, 115),
     (aux_sym_bool_literal_with_string_token1, 117), (aux_sym_bool_literal_with_string_token2, 119),
     (aux_sym_bool_literal_with_string_token3, 119), (sym_s_byte_char_str, 121),
     (sym_d_byte_char_str, 121), (aux_sym_time_token1, 123), (anon_sym_PLUS, 63),
     (anon_sym_DASH, 63), (aux_sym_ltime_token1, 125), (aux_sym_tod_token1, 127),
     (aux_sym_ltod_token1, 129), (aux_sym_short_date_token1, 131), (aux_sym_long_date_token1, 133),
     (aux_sym_short_date_and_time_token1, 135), (aux_sym_long_date_and_time_token1, 137),
     (aux_sym_sign_int_type_name_token1, 79), (aux_sym_sign_int_type_name_token2, 79),
     (aux_sym_sign_int_type_name_token3, 79), (aux_sym_sign_int_type_name_token4, 79),
     (aux_sym_unsign_int_type_name_token1, 81), (aux_sym_unsign_int_type_name_token2, 81),
     (aux_sym_unsign_int_type_name_token3, 81), (aux_sym_unsign_int_type_name_token4, 81),
     (aux_sym_real_type_name_token1, 83), (aux_sym_real_type_name_token2, 83),
     (aux_sym_string_name_token1, 85), (aux_sym_char_name_token1, 87),
     (aux_sym_multibits_type_name_token1, 89), (aux_sym_multibits_type_name_token2, 89),
     (aux_sym_multibits_type_name_token3, 89), (aux_sym_multibits_type_name_token4, 89),
     (anon_sym_PERCENT, 139), (aux_sym_ref_value_token1, 141), (aux_sym_ref_addr_token1, 143),
     (anon_sym_DOT_DOT_DOT, 145), (aux_sym_unary_token1, 63), (sym_c_style_comment, 3),
     (sym_pascal_style_comment, 3), (sym_pragma, 3), (sym__minus_before_base, 99),
     (sym__plus_before_base, 99)]"

lemma ts_parse_row_63_scan: "row_scan tokens_4_1 0 ts_parse_row_63 = Some (Suc (Suc (Suc (Suc (Suc (Suc 0))))))"
  unfolding ts_parse_row_63_def by simp

text \<open>Lines 61025 to 61149.\<close>

definition ts_parse_row_64 :: parse_row where
  "ts_parse_row_64 =
    [(sym_ERR_unexpected_this_in_path, 1132), (sym_ERR_unexpected_super_in_path, 1132),
     (sym_constant, 1189), (sym_numeric_literal, 1180), (sym_int_literal, 1182),
     (sym_int_kind, 10047), (sym_signed_int, 1200), (sym_real_literal, 1182),
     (sym_signed_real_value, 1183), (sym_bool_literal, 1180), (sym_bool_literal_with_string, 1185),
     (sym_bool_literal_with_numeric, 1185), (sym_char_literal, 1180), (sym_char_str, 1187),
     (sym_time_literal, 1180), (sym_duration, 1169), (sym_time, 1191), (sym_ltime, 1191),
     (sym_time_of_day, 1169), (sym_tod, 1192), (sym_ltod, 1192), (sym_date, 1169),
     (sym_short_date, 1193), (sym_long_date, 1193), (sym_date_and_time, 1169),
     (sym_short_date_and_time, 1194), (sym_long_date_and_time, 1194), (sym_int_type_name, 9449),
     (sym_sign_int_type_name, 2352), (sym_unsign_int_type_name, 2352), (sym_real_type_name, 10048),
     (sym_string_type_name, 10049), (sym_string_name, 2353), (sym_char_name, 2353),
     (sym_multibits_type_name, 9449), (sym_enum_value, 1189), (sym_direct_variable, 1149),
     (sym_ref_value, 1189), (sym_ref_addr, 1164), (sym_deref_expression, 1130),
     (sym_variable, 1146), (sym_var_access, 1130), (sym__expression, 1119),
     (sym_fold_expression, 1195), (sym_pack_element, 1195), (sym__primary_expression, 1195),
     (sym_parenthesized_expression, 1189), (sym_boolean_operator, 1195), (sym_or_operator, 1196),
     (sym_xor_operator, 1196), (sym_and_operator, 1196), (sym_comparison_operator, 1195),
     (sym_eq_operator, 1197), (sym_ord_operator, 1197), (sym_add_operator, 1195),
     (sym_mult_operator, 1195), (sym_power_operator, 1195), (sym_unary_operator, 1195),
     (sym_unary, 60), (sym_variable_access, 1189), (sym_func_call, 1189),
     (sym_begin_path_expression, 1138), (sym_invocation, 1145), (sym_any_invocation, 1139),
     (sym_this_invocation, 1136), (sym_super_invocation, 1136), (sym_super_body_invocation, 1139),
     (sym_path_expression, 1109), (sym_field_expression, 1130), (sym_index_expression, 1130),
     (sym_identifier, 101), (aux_sym_ERR_unexpected_this_in_path_token1, 103),
     (aux_sym_ERR_unexpected_super_in_path_token1, 105), (sym_line_comment, 3),
     (anon_sym_LPAREN, 107), (sym_unsigned_int, 109), (sym__explicit_signed_int, 109),
     (sym_binary_int, 111), (sym_octal_int, 111), (sym_hex_int, 113),
     (sym__explicit_signed_real, 115), (sym_real_value, 115),
     (aux_sym_bool_literal_with_string_token1, 117), (aux_sym_bool_literal_with_string_token2, 119),
     (aux_sym_bool_literal_with_string_token3, 119), (sym_s_byte_char_str, 121),
     (sym_d_byte_char_str, 121), (aux_sym_time_token1, 123), (anon_sym_PLUS, 63),
     (anon_sym_DASH, 63), (aux_sym_ltime_token1, 125), (aux_sym_tod_token1, 127),
     (aux_sym_ltod_token1, 129), (aux_sym_short_date_token1, 131), (aux_sym_long_date_token1, 133),
     (aux_sym_short_date_and_time_token1, 135), (aux_sym_long_date_and_time_token1, 137),
     (aux_sym_sign_int_type_name_token1, 79), (aux_sym_sign_int_type_name_token2, 79),
     (aux_sym_sign_int_type_name_token3, 79), (aux_sym_sign_int_type_name_token4, 79),
     (aux_sym_unsign_int_type_name_token1, 81), (aux_sym_unsign_int_type_name_token2, 81),
     (aux_sym_unsign_int_type_name_token3, 81), (aux_sym_unsign_int_type_name_token4, 81),
     (aux_sym_real_type_name_token1, 83), (aux_sym_real_type_name_token2, 83),
     (aux_sym_string_name_token1, 85), (aux_sym_char_name_token1, 87),
     (aux_sym_multibits_type_name_token1, 89), (aux_sym_multibits_type_name_token2, 89),
     (aux_sym_multibits_type_name_token3, 89), (aux_sym_multibits_type_name_token4, 89),
     (anon_sym_PERCENT, 139), (aux_sym_ref_value_token1, 141), (aux_sym_ref_addr_token1, 143),
     (anon_sym_DOT_DOT_DOT, 145), (aux_sym_unary_token1, 63), (sym_c_style_comment, 3),
     (sym_pascal_style_comment, 3), (sym_pragma, 3), (sym__minus_before_base, 99),
     (sym__plus_before_base, 99)]"

lemma ts_parse_row_64_scan: "row_scan tokens_4_1 0 ts_parse_row_64 = Some (Suc (Suc (Suc (Suc (Suc (Suc 0))))))"
  unfolding ts_parse_row_64_def by simp

text \<open>Lines 61150 to 61274.\<close>

definition ts_parse_row_65 :: parse_row where
  "ts_parse_row_65 =
    [(sym_ERR_unexpected_this_in_path, 1132), (sym_ERR_unexpected_super_in_path, 1132),
     (sym_constant, 1189), (sym_numeric_literal, 1180), (sym_int_literal, 1182),
     (sym_int_kind, 10047), (sym_signed_int, 1200), (sym_real_literal, 1182),
     (sym_signed_real_value, 1183), (sym_bool_literal, 1180), (sym_bool_literal_with_string, 1185),
     (sym_bool_literal_with_numeric, 1185), (sym_char_literal, 1180), (sym_char_str, 1187),
     (sym_time_literal, 1180), (sym_duration, 1169), (sym_time, 1191), (sym_ltime, 1191),
     (sym_time_of_day, 1169), (sym_tod, 1192), (sym_ltod, 1192), (sym_date, 1169),
     (sym_short_date, 1193), (sym_long_date, 1193), (sym_date_and_time, 1169),
     (sym_short_date_and_time, 1194), (sym_long_date_and_time, 1194), (sym_int_type_name, 9449),
     (sym_sign_int_type_name, 2352), (sym_unsign_int_type_name, 2352), (sym_real_type_name, 10048),
     (sym_string_type_name, 10049), (sym_string_name, 2353), (sym_char_name, 2353),
     (sym_multibits_type_name, 9449), (sym_enum_value, 1189), (sym_direct_variable, 1149),
     (sym_ref_value, 1189), (sym_ref_addr, 1164), (sym_deref_expression, 1130),
     (sym_variable, 1146), (sym_var_access, 1130), (sym__expression, 1120),
     (sym_fold_expression, 1195), (sym_pack_element, 1195), (sym__primary_expression, 1195),
     (sym_parenthesized_expression, 1189), (sym_boolean_operator, 1195), (sym_or_operator, 1196),
     (sym_xor_operator, 1196), (sym_and_operator, 1196), (sym_comparison_operator, 1195),
     (sym_eq_operator, 1197), (sym_ord_operator, 1197), (sym_add_operator, 1195),
     (sym_mult_operator, 1195), (sym_power_operator, 1195), (sym_unary_operator, 1195),
     (sym_unary, 60), (sym_variable_access, 1189), (sym_func_call, 1189),
     (sym_begin_path_expression, 1138), (sym_invocation, 1145), (sym_any_invocation, 1139),
     (sym_this_invocation, 1136), (sym_super_invocation, 1136), (sym_super_body_invocation, 1139),
     (sym_path_expression, 1109), (sym_field_expression, 1130), (sym_index_expression, 1130),
     (sym_identifier, 101), (aux_sym_ERR_unexpected_this_in_path_token1, 103),
     (aux_sym_ERR_unexpected_super_in_path_token1, 105), (sym_line_comment, 3),
     (anon_sym_LPAREN, 107), (sym_unsigned_int, 109), (sym__explicit_signed_int, 109),
     (sym_binary_int, 111), (sym_octal_int, 111), (sym_hex_int, 113),
     (sym__explicit_signed_real, 115), (sym_real_value, 115),
     (aux_sym_bool_literal_with_string_token1, 117), (aux_sym_bool_literal_with_string_token2, 119),
     (aux_sym_bool_literal_with_string_token3, 119), (sym_s_byte_char_str, 121),
     (sym_d_byte_char_str, 121), (aux_sym_time_token1, 123), (anon_sym_PLUS, 63),
     (anon_sym_DASH, 63), (aux_sym_ltime_token1, 125), (aux_sym_tod_token1, 127),
     (aux_sym_ltod_token1, 129), (aux_sym_short_date_token1, 131), (aux_sym_long_date_token1, 133),
     (aux_sym_short_date_and_time_token1, 135), (aux_sym_long_date_and_time_token1, 137),
     (aux_sym_sign_int_type_name_token1, 79), (aux_sym_sign_int_type_name_token2, 79),
     (aux_sym_sign_int_type_name_token3, 79), (aux_sym_sign_int_type_name_token4, 79),
     (aux_sym_unsign_int_type_name_token1, 81), (aux_sym_unsign_int_type_name_token2, 81),
     (aux_sym_unsign_int_type_name_token3, 81), (aux_sym_unsign_int_type_name_token4, 81),
     (aux_sym_real_type_name_token1, 83), (aux_sym_real_type_name_token2, 83),
     (aux_sym_string_name_token1, 85), (aux_sym_char_name_token1, 87),
     (aux_sym_multibits_type_name_token1, 89), (aux_sym_multibits_type_name_token2, 89),
     (aux_sym_multibits_type_name_token3, 89), (aux_sym_multibits_type_name_token4, 89),
     (anon_sym_PERCENT, 139), (aux_sym_ref_value_token1, 141), (aux_sym_ref_addr_token1, 143),
     (anon_sym_DOT_DOT_DOT, 145), (aux_sym_unary_token1, 63), (sym_c_style_comment, 3),
     (sym_pascal_style_comment, 3), (sym_pragma, 3), (sym__minus_before_base, 99),
     (sym__plus_before_base, 99)]"

lemma ts_parse_row_65_scan: "row_scan tokens_4_1 0 ts_parse_row_65 = Some (Suc (Suc (Suc (Suc (Suc (Suc 0))))))"
  unfolding ts_parse_row_65_def by simp

text \<open>Lines 61275 to 61399.\<close>

definition ts_parse_row_66 :: parse_row where
  "ts_parse_row_66 =
    [(sym_ERR_unexpected_this_in_path, 1132), (sym_ERR_unexpected_super_in_path, 1132),
     (sym_constant, 1189), (sym_numeric_literal, 1180), (sym_int_literal, 1182),
     (sym_int_kind, 10047), (sym_signed_int, 1200), (sym_real_literal, 1182),
     (sym_signed_real_value, 1183), (sym_bool_literal, 1180), (sym_bool_literal_with_string, 1185),
     (sym_bool_literal_with_numeric, 1185), (sym_char_literal, 1180), (sym_char_str, 1187),
     (sym_time_literal, 1180), (sym_duration, 1169), (sym_time, 1191), (sym_ltime, 1191),
     (sym_time_of_day, 1169), (sym_tod, 1192), (sym_ltod, 1192), (sym_date, 1169),
     (sym_short_date, 1193), (sym_long_date, 1193), (sym_date_and_time, 1169),
     (sym_short_date_and_time, 1194), (sym_long_date_and_time, 1194), (sym_int_type_name, 9449),
     (sym_sign_int_type_name, 2352), (sym_unsign_int_type_name, 2352), (sym_real_type_name, 10048),
     (sym_string_type_name, 10049), (sym_string_name, 2353), (sym_char_name, 2353),
     (sym_multibits_type_name, 9449), (sym_enum_value, 1189), (sym_direct_variable, 1149),
     (sym_ref_value, 1189), (sym_ref_addr, 1164), (sym_deref_expression, 1130),
     (sym_variable, 1146), (sym_var_access, 1130), (sym__expression, 1121),
     (sym_fold_expression, 1195), (sym_pack_element, 1195), (sym__primary_expression, 1195),
     (sym_parenthesized_expression, 1189), (sym_boolean_operator, 1195), (sym_or_operator, 1196),
     (sym_xor_operator, 1196), (sym_and_operator, 1196), (sym_comparison_operator, 1195),
     (sym_eq_operator, 1197), (sym_ord_operator, 1197), (sym_add_operator, 1195),
     (sym_mult_operator, 1195), (sym_power_operator, 1195), (sym_unary_operator, 1195),
     (sym_unary, 60), (sym_variable_access, 1189), (sym_func_call, 1189),
     (sym_begin_path_expression, 1138), (sym_invocation, 1145), (sym_any_invocation, 1139),
     (sym_this_invocation, 1136), (sym_super_invocation, 1136), (sym_super_body_invocation, 1139),
     (sym_path_expression, 1109), (sym_field_expression, 1130), (sym_index_expression, 1130),
     (sym_identifier, 101), (aux_sym_ERR_unexpected_this_in_path_token1, 103),
     (aux_sym_ERR_unexpected_super_in_path_token1, 105), (sym_line_comment, 3),
     (anon_sym_LPAREN, 107), (sym_unsigned_int, 109), (sym__explicit_signed_int, 109),
     (sym_binary_int, 111), (sym_octal_int, 111), (sym_hex_int, 113),
     (sym__explicit_signed_real, 115), (sym_real_value, 115),
     (aux_sym_bool_literal_with_string_token1, 117), (aux_sym_bool_literal_with_string_token2, 119),
     (aux_sym_bool_literal_with_string_token3, 119), (sym_s_byte_char_str, 121),
     (sym_d_byte_char_str, 121), (aux_sym_time_token1, 123), (anon_sym_PLUS, 63),
     (anon_sym_DASH, 63), (aux_sym_ltime_token1, 125), (aux_sym_tod_token1, 127),
     (aux_sym_ltod_token1, 129), (aux_sym_short_date_token1, 131), (aux_sym_long_date_token1, 133),
     (aux_sym_short_date_and_time_token1, 135), (aux_sym_long_date_and_time_token1, 137),
     (aux_sym_sign_int_type_name_token1, 79), (aux_sym_sign_int_type_name_token2, 79),
     (aux_sym_sign_int_type_name_token3, 79), (aux_sym_sign_int_type_name_token4, 79),
     (aux_sym_unsign_int_type_name_token1, 81), (aux_sym_unsign_int_type_name_token2, 81),
     (aux_sym_unsign_int_type_name_token3, 81), (aux_sym_unsign_int_type_name_token4, 81),
     (aux_sym_real_type_name_token1, 83), (aux_sym_real_type_name_token2, 83),
     (aux_sym_string_name_token1, 85), (aux_sym_char_name_token1, 87),
     (aux_sym_multibits_type_name_token1, 89), (aux_sym_multibits_type_name_token2, 89),
     (aux_sym_multibits_type_name_token3, 89), (aux_sym_multibits_type_name_token4, 89),
     (anon_sym_PERCENT, 139), (aux_sym_ref_value_token1, 141), (aux_sym_ref_addr_token1, 143),
     (anon_sym_DOT_DOT_DOT, 145), (aux_sym_unary_token1, 63), (sym_c_style_comment, 3),
     (sym_pascal_style_comment, 3), (sym_pragma, 3), (sym__minus_before_base, 99),
     (sym__plus_before_base, 99)]"

lemma ts_parse_row_66_scan: "row_scan tokens_4_1 0 ts_parse_row_66 = Some (Suc (Suc (Suc (Suc (Suc (Suc 0))))))"
  unfolding ts_parse_row_66_def by simp

text \<open>Lines 61400 to 61524.\<close>

definition ts_parse_row_67 :: parse_row where
  "ts_parse_row_67 =
    [(sym_ERR_unexpected_this_in_path, 1132), (sym_ERR_unexpected_super_in_path, 1132),
     (sym_constant, 1189), (sym_numeric_literal, 1180), (sym_int_literal, 1182),
     (sym_int_kind, 10047), (sym_signed_int, 1200), (sym_real_literal, 1182),
     (sym_signed_real_value, 1183), (sym_bool_literal, 1180), (sym_bool_literal_with_string, 1185),
     (sym_bool_literal_with_numeric, 1185), (sym_char_literal, 1180), (sym_char_str, 1187),
     (sym_time_literal, 1180), (sym_duration, 1169), (sym_time, 1191), (sym_ltime, 1191),
     (sym_time_of_day, 1169), (sym_tod, 1192), (sym_ltod, 1192), (sym_date, 1169),
     (sym_short_date, 1193), (sym_long_date, 1193), (sym_date_and_time, 1169),
     (sym_short_date_and_time, 1194), (sym_long_date_and_time, 1194), (sym_int_type_name, 9449),
     (sym_sign_int_type_name, 2352), (sym_unsign_int_type_name, 2352), (sym_real_type_name, 10048),
     (sym_string_type_name, 10049), (sym_string_name, 2353), (sym_char_name, 2353),
     (sym_multibits_type_name, 9449), (sym_enum_value, 1189), (sym_direct_variable, 1149),
     (sym_ref_value, 1189), (sym_ref_addr, 1164), (sym_deref_expression, 1130),
     (sym_variable, 1146), (sym_var_access, 1130), (sym__expression, 1122),
     (sym_fold_expression, 1195), (sym_pack_element, 1195), (sym__primary_expression, 1195),
     (sym_parenthesized_expression, 1189), (sym_boolean_operator, 1195), (sym_or_operator, 1196),
     (sym_xor_operator, 1196), (sym_and_operator, 1196), (sym_comparison_operator, 1195),
     (sym_eq_operator, 1197), (sym_ord_operator, 1197), (sym_add_operator, 1195),
     (sym_mult_operator, 1195), (sym_power_operator, 1195), (sym_unary_operator, 1195),
     (sym_unary, 60), (sym_variable_access, 1189), (sym_func_call, 1189),
     (sym_begin_path_expression, 1138), (sym_invocation, 1145), (sym_any_invocation, 1139),
     (sym_this_invocation, 1136), (sym_super_invocation, 1136), (sym_super_body_invocation, 1139),
     (sym_path_expression, 1109), (sym_field_expression, 1130), (sym_index_expression, 1130),
     (sym_identifier, 101), (aux_sym_ERR_unexpected_this_in_path_token1, 103),
     (aux_sym_ERR_unexpected_super_in_path_token1, 105), (sym_line_comment, 3),
     (anon_sym_LPAREN, 107), (sym_unsigned_int, 109), (sym__explicit_signed_int, 109),
     (sym_binary_int, 111), (sym_octal_int, 111), (sym_hex_int, 113),
     (sym__explicit_signed_real, 115), (sym_real_value, 115),
     (aux_sym_bool_literal_with_string_token1, 117), (aux_sym_bool_literal_with_string_token2, 119),
     (aux_sym_bool_literal_with_string_token3, 119), (sym_s_byte_char_str, 121),
     (sym_d_byte_char_str, 121), (aux_sym_time_token1, 123), (anon_sym_PLUS, 63),
     (anon_sym_DASH, 63), (aux_sym_ltime_token1, 125), (aux_sym_tod_token1, 127),
     (aux_sym_ltod_token1, 129), (aux_sym_short_date_token1, 131), (aux_sym_long_date_token1, 133),
     (aux_sym_short_date_and_time_token1, 135), (aux_sym_long_date_and_time_token1, 137),
     (aux_sym_sign_int_type_name_token1, 79), (aux_sym_sign_int_type_name_token2, 79),
     (aux_sym_sign_int_type_name_token3, 79), (aux_sym_sign_int_type_name_token4, 79),
     (aux_sym_unsign_int_type_name_token1, 81), (aux_sym_unsign_int_type_name_token2, 81),
     (aux_sym_unsign_int_type_name_token3, 81), (aux_sym_unsign_int_type_name_token4, 81),
     (aux_sym_real_type_name_token1, 83), (aux_sym_real_type_name_token2, 83),
     (aux_sym_string_name_token1, 85), (aux_sym_char_name_token1, 87),
     (aux_sym_multibits_type_name_token1, 89), (aux_sym_multibits_type_name_token2, 89),
     (aux_sym_multibits_type_name_token3, 89), (aux_sym_multibits_type_name_token4, 89),
     (anon_sym_PERCENT, 139), (aux_sym_ref_value_token1, 141), (aux_sym_ref_addr_token1, 143),
     (anon_sym_DOT_DOT_DOT, 145), (aux_sym_unary_token1, 63), (sym_c_style_comment, 3),
     (sym_pascal_style_comment, 3), (sym_pragma, 3), (sym__minus_before_base, 99),
     (sym__plus_before_base, 99)]"

lemma ts_parse_row_67_scan: "row_scan tokens_4_1 0 ts_parse_row_67 = Some (Suc (Suc (Suc (Suc (Suc (Suc 0))))))"
  unfolding ts_parse_row_67_def by simp

text \<open>Lines 61525 to 61649.\<close>

definition ts_parse_row_68 :: parse_row where
  "ts_parse_row_68 =
    [(sym_ERR_unexpected_this_in_path, 1132), (sym_ERR_unexpected_super_in_path, 1132),
     (sym_constant, 1189), (sym_numeric_literal, 1180), (sym_int_literal, 1182),
     (sym_int_kind, 10047), (sym_signed_int, 1200), (sym_real_literal, 1182),
     (sym_signed_real_value, 1183), (sym_bool_literal, 1180), (sym_bool_literal_with_string, 1185),
     (sym_bool_literal_with_numeric, 1185), (sym_char_literal, 1180), (sym_char_str, 1187),
     (sym_time_literal, 1180), (sym_duration, 1169), (sym_time, 1191), (sym_ltime, 1191),
     (sym_time_of_day, 1169), (sym_tod, 1192), (sym_ltod, 1192), (sym_date, 1169),
     (sym_short_date, 1193), (sym_long_date, 1193), (sym_date_and_time, 1169),
     (sym_short_date_and_time, 1194), (sym_long_date_and_time, 1194), (sym_int_type_name, 9449),
     (sym_sign_int_type_name, 2352), (sym_unsign_int_type_name, 2352), (sym_real_type_name, 10048),
     (sym_string_type_name, 10049), (sym_string_name, 2353), (sym_char_name, 2353),
     (sym_multibits_type_name, 9449), (sym_enum_value, 1189), (sym_direct_variable, 1149),
     (sym_ref_value, 1189), (sym_ref_addr, 1164), (sym_deref_expression, 1130),
     (sym_variable, 1146), (sym_var_access, 1130), (sym__expression, 1123),
     (sym_fold_expression, 1195), (sym_pack_element, 1195), (sym__primary_expression, 1195),
     (sym_parenthesized_expression, 1189), (sym_boolean_operator, 1195), (sym_or_operator, 1196),
     (sym_xor_operator, 1196), (sym_and_operator, 1196), (sym_comparison_operator, 1195),
     (sym_eq_operator, 1197), (sym_ord_operator, 1197), (sym_add_operator, 1195),
     (sym_mult_operator, 1195), (sym_power_operator, 1195), (sym_unary_operator, 1195),
     (sym_unary, 60), (sym_variable_access, 1189), (sym_func_call, 1189),
     (sym_begin_path_expression, 1138), (sym_invocation, 1145), (sym_any_invocation, 1139),
     (sym_this_invocation, 1136), (sym_super_invocation, 1136), (sym_super_body_invocation, 1139),
     (sym_path_expression, 1109), (sym_field_expression, 1130), (sym_index_expression, 1130),
     (sym_identifier, 101), (aux_sym_ERR_unexpected_this_in_path_token1, 103),
     (aux_sym_ERR_unexpected_super_in_path_token1, 105), (sym_line_comment, 3),
     (anon_sym_LPAREN, 107), (sym_unsigned_int, 109), (sym__explicit_signed_int, 109),
     (sym_binary_int, 111), (sym_octal_int, 111), (sym_hex_int, 113),
     (sym__explicit_signed_real, 115), (sym_real_value, 115),
     (aux_sym_bool_literal_with_string_token1, 117), (aux_sym_bool_literal_with_string_token2, 119),
     (aux_sym_bool_literal_with_string_token3, 119), (sym_s_byte_char_str, 121),
     (sym_d_byte_char_str, 121), (aux_sym_time_token1, 123), (anon_sym_PLUS, 63),
     (anon_sym_DASH, 63), (aux_sym_ltime_token1, 125), (aux_sym_tod_token1, 127),
     (aux_sym_ltod_token1, 129), (aux_sym_short_date_token1, 131), (aux_sym_long_date_token1, 133),
     (aux_sym_short_date_and_time_token1, 135), (aux_sym_long_date_and_time_token1, 137),
     (aux_sym_sign_int_type_name_token1, 79), (aux_sym_sign_int_type_name_token2, 79),
     (aux_sym_sign_int_type_name_token3, 79), (aux_sym_sign_int_type_name_token4, 79),
     (aux_sym_unsign_int_type_name_token1, 81), (aux_sym_unsign_int_type_name_token2, 81),
     (aux_sym_unsign_int_type_name_token3, 81), (aux_sym_unsign_int_type_name_token4, 81),
     (aux_sym_real_type_name_token1, 83), (aux_sym_real_type_name_token2, 83),
     (aux_sym_string_name_token1, 85), (aux_sym_char_name_token1, 87),
     (aux_sym_multibits_type_name_token1, 89), (aux_sym_multibits_type_name_token2, 89),
     (aux_sym_multibits_type_name_token3, 89), (aux_sym_multibits_type_name_token4, 89),
     (anon_sym_PERCENT, 139), (aux_sym_ref_value_token1, 141), (aux_sym_ref_addr_token1, 143),
     (anon_sym_DOT_DOT_DOT, 145), (aux_sym_unary_token1, 63), (sym_c_style_comment, 3),
     (sym_pascal_style_comment, 3), (sym_pragma, 3), (sym__minus_before_base, 99),
     (sym__plus_before_base, 99)]"

lemma ts_parse_row_68_scan: "row_scan tokens_4_1 0 ts_parse_row_68 = Some (Suc (Suc (Suc (Suc (Suc (Suc 0))))))"
  unfolding ts_parse_row_68_def by simp

text \<open>Lines 61650 to 61774.\<close>

definition ts_parse_row_69 :: parse_row where
  "ts_parse_row_69 =
    [(sym_ERR_unexpected_this_in_path, 1132), (sym_ERR_unexpected_super_in_path, 1132),
     (sym_constant, 1189), (sym_numeric_literal, 1180), (sym_int_literal, 1182),
     (sym_int_kind, 10047), (sym_signed_int, 1200), (sym_real_literal, 1182),
     (sym_signed_real_value, 1183), (sym_bool_literal, 1180), (sym_bool_literal_with_string, 1185),
     (sym_bool_literal_with_numeric, 1185), (sym_char_literal, 1180), (sym_char_str, 1187),
     (sym_time_literal, 1180), (sym_duration, 1169), (sym_time, 1191), (sym_ltime, 1191),
     (sym_time_of_day, 1169), (sym_tod, 1192), (sym_ltod, 1192), (sym_date, 1169),
     (sym_short_date, 1193), (sym_long_date, 1193), (sym_date_and_time, 1169),
     (sym_short_date_and_time, 1194), (sym_long_date_and_time, 1194), (sym_int_type_name, 9449),
     (sym_sign_int_type_name, 2352), (sym_unsign_int_type_name, 2352), (sym_real_type_name, 10048),
     (sym_string_type_name, 10049), (sym_string_name, 2353), (sym_char_name, 2353),
     (sym_multibits_type_name, 9449), (sym_enum_value, 1189), (sym_direct_variable, 1149),
     (sym_ref_value, 1189), (sym_ref_addr, 1164), (sym_deref_expression, 1130),
     (sym_variable, 1146), (sym_var_access, 1130), (sym__expression, 1124),
     (sym_fold_expression, 1195), (sym_pack_element, 1195), (sym__primary_expression, 1195),
     (sym_parenthesized_expression, 1189), (sym_boolean_operator, 1195), (sym_or_operator, 1196),
     (sym_xor_operator, 1196), (sym_and_operator, 1196), (sym_comparison_operator, 1195),
     (sym_eq_operator, 1197), (sym_ord_operator, 1197), (sym_add_operator, 1195),
     (sym_mult_operator, 1195), (sym_power_operator, 1195), (sym_unary_operator, 1195),
     (sym_unary, 60), (sym_variable_access, 1189), (sym_func_call, 1189),
     (sym_begin_path_expression, 1138), (sym_invocation, 1145), (sym_any_invocation, 1139),
     (sym_this_invocation, 1136), (sym_super_invocation, 1136), (sym_super_body_invocation, 1139),
     (sym_path_expression, 1109), (sym_field_expression, 1130), (sym_index_expression, 1130),
     (sym_identifier, 101), (aux_sym_ERR_unexpected_this_in_path_token1, 103),
     (aux_sym_ERR_unexpected_super_in_path_token1, 105), (sym_line_comment, 3),
     (anon_sym_LPAREN, 107), (sym_unsigned_int, 109), (sym__explicit_signed_int, 109),
     (sym_binary_int, 111), (sym_octal_int, 111), (sym_hex_int, 113),
     (sym__explicit_signed_real, 115), (sym_real_value, 115),
     (aux_sym_bool_literal_with_string_token1, 117), (aux_sym_bool_literal_with_string_token2, 119),
     (aux_sym_bool_literal_with_string_token3, 119), (sym_s_byte_char_str, 121),
     (sym_d_byte_char_str, 121), (aux_sym_time_token1, 123), (anon_sym_PLUS, 63),
     (anon_sym_DASH, 63), (aux_sym_ltime_token1, 125), (aux_sym_tod_token1, 127),
     (aux_sym_ltod_token1, 129), (aux_sym_short_date_token1, 131), (aux_sym_long_date_token1, 133),
     (aux_sym_short_date_and_time_token1, 135), (aux_sym_long_date_and_time_token1, 137),
     (aux_sym_sign_int_type_name_token1, 79), (aux_sym_sign_int_type_name_token2, 79),
     (aux_sym_sign_int_type_name_token3, 79), (aux_sym_sign_int_type_name_token4, 79),
     (aux_sym_unsign_int_type_name_token1, 81), (aux_sym_unsign_int_type_name_token2, 81),
     (aux_sym_unsign_int_type_name_token3, 81), (aux_sym_unsign_int_type_name_token4, 81),
     (aux_sym_real_type_name_token1, 83), (aux_sym_real_type_name_token2, 83),
     (aux_sym_string_name_token1, 85), (aux_sym_char_name_token1, 87),
     (aux_sym_multibits_type_name_token1, 89), (aux_sym_multibits_type_name_token2, 89),
     (aux_sym_multibits_type_name_token3, 89), (aux_sym_multibits_type_name_token4, 89),
     (anon_sym_PERCENT, 139), (aux_sym_ref_value_token1, 141), (aux_sym_ref_addr_token1, 143),
     (anon_sym_DOT_DOT_DOT, 145), (aux_sym_unary_token1, 63), (sym_c_style_comment, 3),
     (sym_pascal_style_comment, 3), (sym_pragma, 3), (sym__minus_before_base, 99),
     (sym__plus_before_base, 99)]"

lemma ts_parse_row_69_scan: "row_scan tokens_4_1 0 ts_parse_row_69 = Some (Suc (Suc (Suc (Suc (Suc (Suc 0))))))"
  unfolding ts_parse_row_69_def by simp

text \<open>Lines 61775 to 61899.\<close>

definition ts_parse_row_70 :: parse_row where
  "ts_parse_row_70 =
    [(sym_ERR_unexpected_this_in_path, 1132), (sym_ERR_unexpected_super_in_path, 1132),
     (sym_constant, 1189), (sym_numeric_literal, 1180), (sym_int_literal, 1182),
     (sym_int_kind, 10047), (sym_signed_int, 1200), (sym_real_literal, 1182),
     (sym_signed_real_value, 1183), (sym_bool_literal, 1180), (sym_bool_literal_with_string, 1185),
     (sym_bool_literal_with_numeric, 1185), (sym_char_literal, 1180), (sym_char_str, 1187),
     (sym_time_literal, 1180), (sym_duration, 1169), (sym_time, 1191), (sym_ltime, 1191),
     (sym_time_of_day, 1169), (sym_tod, 1192), (sym_ltod, 1192), (sym_date, 1169),
     (sym_short_date, 1193), (sym_long_date, 1193), (sym_date_and_time, 1169),
     (sym_short_date_and_time, 1194), (sym_long_date_and_time, 1194), (sym_int_type_name, 9449),
     (sym_sign_int_type_name, 2352), (sym_unsign_int_type_name, 2352), (sym_real_type_name, 10048),
     (sym_string_type_name, 10049), (sym_string_name, 2353), (sym_char_name, 2353),
     (sym_multibits_type_name, 9449), (sym_enum_value, 1189), (sym_direct_variable, 1149),
     (sym_ref_value, 1189), (sym_ref_addr, 1164), (sym_deref_expression, 1130),
     (sym_variable, 1146), (sym_var_access, 1130), (sym__expression, 1125),
     (sym_fold_expression, 1195), (sym_pack_element, 1195), (sym__primary_expression, 1195),
     (sym_parenthesized_expression, 1189), (sym_boolean_operator, 1195), (sym_or_operator, 1196),
     (sym_xor_operator, 1196), (sym_and_operator, 1196), (sym_comparison_operator, 1195),
     (sym_eq_operator, 1197), (sym_ord_operator, 1197), (sym_add_operator, 1195),
     (sym_mult_operator, 1195), (sym_power_operator, 1195), (sym_unary_operator, 1195),
     (sym_unary, 60), (sym_variable_access, 1189), (sym_func_call, 1189),
     (sym_begin_path_expression, 1138), (sym_invocation, 1145), (sym_any_invocation, 1139),
     (sym_this_invocation, 1136), (sym_super_invocation, 1136), (sym_super_body_invocation, 1139),
     (sym_path_expression, 1109), (sym_field_expression, 1130), (sym_index_expression, 1130),
     (sym_identifier, 101), (aux_sym_ERR_unexpected_this_in_path_token1, 103),
     (aux_sym_ERR_unexpected_super_in_path_token1, 105), (sym_line_comment, 3),
     (anon_sym_LPAREN, 107), (sym_unsigned_int, 109), (sym__explicit_signed_int, 109),
     (sym_binary_int, 111), (sym_octal_int, 111), (sym_hex_int, 113),
     (sym__explicit_signed_real, 115), (sym_real_value, 115),
     (aux_sym_bool_literal_with_string_token1, 117), (aux_sym_bool_literal_with_string_token2, 119),
     (aux_sym_bool_literal_with_string_token3, 119), (sym_s_byte_char_str, 121),
     (sym_d_byte_char_str, 121), (aux_sym_time_token1, 123), (anon_sym_PLUS, 63),
     (anon_sym_DASH, 63), (aux_sym_ltime_token1, 125), (aux_sym_tod_token1, 127),
     (aux_sym_ltod_token1, 129), (aux_sym_short_date_token1, 131), (aux_sym_long_date_token1, 133),
     (aux_sym_short_date_and_time_token1, 135), (aux_sym_long_date_and_time_token1, 137),
     (aux_sym_sign_int_type_name_token1, 79), (aux_sym_sign_int_type_name_token2, 79),
     (aux_sym_sign_int_type_name_token3, 79), (aux_sym_sign_int_type_name_token4, 79),
     (aux_sym_unsign_int_type_name_token1, 81), (aux_sym_unsign_int_type_name_token2, 81),
     (aux_sym_unsign_int_type_name_token3, 81), (aux_sym_unsign_int_type_name_token4, 81),
     (aux_sym_real_type_name_token1, 83), (aux_sym_real_type_name_token2, 83),
     (aux_sym_string_name_token1, 85), (aux_sym_char_name_token1, 87),
     (aux_sym_multibits_type_name_token1, 89), (aux_sym_multibits_type_name_token2, 89),
     (aux_sym_multibits_type_name_token3, 89), (aux_sym_multibits_type_name_token4, 89),
     (anon_sym_PERCENT, 139), (aux_sym_ref_value_token1, 141), (aux_sym_ref_addr_token1, 143),
     (anon_sym_DOT_DOT_DOT, 145), (aux_sym_unary_token1, 63), (sym_c_style_comment, 3),
     (sym_pascal_style_comment, 3), (sym_pragma, 3), (sym__minus_before_base, 99),
     (sym__plus_before_base, 99)]"

lemma ts_parse_row_70_scan: "row_scan tokens_4_1 0 ts_parse_row_70 = Some (Suc (Suc (Suc (Suc (Suc (Suc 0))))))"
  unfolding ts_parse_row_70_def by simp

text \<open>Lines 61900 to 62024.\<close>

definition ts_parse_row_71 :: parse_row where
  "ts_parse_row_71 =
    [(sym_ERR_unexpected_this_in_path, 1132), (sym_ERR_unexpected_super_in_path, 1132),
     (sym_constant, 1189), (sym_numeric_literal, 1180), (sym_int_literal, 1182),
     (sym_int_kind, 10047), (sym_signed_int, 1200), (sym_real_literal, 1182),
     (sym_signed_real_value, 1183), (sym_bool_literal, 1180), (sym_bool_literal_with_string, 1185),
     (sym_bool_literal_with_numeric, 1185), (sym_char_literal, 1180), (sym_char_str, 1187),
     (sym_time_literal, 1180), (sym_duration, 1169), (sym_time, 1191), (sym_ltime, 1191),
     (sym_time_of_day, 1169), (sym_tod, 1192), (sym_ltod, 1192), (sym_date, 1169),
     (sym_short_date, 1193), (sym_long_date, 1193), (sym_date_and_time, 1169),
     (sym_short_date_and_time, 1194), (sym_long_date_and_time, 1194), (sym_int_type_name, 9449),
     (sym_sign_int_type_name, 2352), (sym_unsign_int_type_name, 2352), (sym_real_type_name, 10048),
     (sym_string_type_name, 10049), (sym_string_name, 2353), (sym_char_name, 2353),
     (sym_multibits_type_name, 9449), (sym_enum_value, 1189), (sym_direct_variable, 1149),
     (sym_ref_value, 1189), (sym_ref_addr, 1164), (sym_deref_expression, 1130),
     (sym_variable, 1146), (sym_var_access, 1130), (sym__expression, 1126),
     (sym_fold_expression, 1195), (sym_pack_element, 1195), (sym__primary_expression, 1195),
     (sym_parenthesized_expression, 1189), (sym_boolean_operator, 1195), (sym_or_operator, 1196),
     (sym_xor_operator, 1196), (sym_and_operator, 1196), (sym_comparison_operator, 1195),
     (sym_eq_operator, 1197), (sym_ord_operator, 1197), (sym_add_operator, 1195),
     (sym_mult_operator, 1195), (sym_power_operator, 1195), (sym_unary_operator, 1195),
     (sym_unary, 60), (sym_variable_access, 1189), (sym_func_call, 1189),
     (sym_begin_path_expression, 1138), (sym_invocation, 1145), (sym_any_invocation, 1139),
     (sym_this_invocation, 1136), (sym_super_invocation, 1136), (sym_super_body_invocation, 1139),
     (sym_path_expression, 1109), (sym_field_expression, 1130), (sym_index_expression, 1130),
     (sym_identifier, 101), (aux_sym_ERR_unexpected_this_in_path_token1, 103),
     (aux_sym_ERR_unexpected_super_in_path_token1, 105), (sym_line_comment, 3),
     (anon_sym_LPAREN, 107), (sym_unsigned_int, 109), (sym__explicit_signed_int, 109),
     (sym_binary_int, 111), (sym_octal_int, 111), (sym_hex_int, 113),
     (sym__explicit_signed_real, 115), (sym_real_value, 115),
     (aux_sym_bool_literal_with_string_token1, 117), (aux_sym_bool_literal_with_string_token2, 119),
     (aux_sym_bool_literal_with_string_token3, 119), (sym_s_byte_char_str, 121),
     (sym_d_byte_char_str, 121), (aux_sym_time_token1, 123), (anon_sym_PLUS, 63),
     (anon_sym_DASH, 63), (aux_sym_ltime_token1, 125), (aux_sym_tod_token1, 127),
     (aux_sym_ltod_token1, 129), (aux_sym_short_date_token1, 131), (aux_sym_long_date_token1, 133),
     (aux_sym_short_date_and_time_token1, 135), (aux_sym_long_date_and_time_token1, 137),
     (aux_sym_sign_int_type_name_token1, 79), (aux_sym_sign_int_type_name_token2, 79),
     (aux_sym_sign_int_type_name_token3, 79), (aux_sym_sign_int_type_name_token4, 79),
     (aux_sym_unsign_int_type_name_token1, 81), (aux_sym_unsign_int_type_name_token2, 81),
     (aux_sym_unsign_int_type_name_token3, 81), (aux_sym_unsign_int_type_name_token4, 81),
     (aux_sym_real_type_name_token1, 83), (aux_sym_real_type_name_token2, 83),
     (aux_sym_string_name_token1, 85), (aux_sym_char_name_token1, 87),
     (aux_sym_multibits_type_name_token1, 89), (aux_sym_multibits_type_name_token2, 89),
     (aux_sym_multibits_type_name_token3, 89), (aux_sym_multibits_type_name_token4, 89),
     (anon_sym_PERCENT, 139), (aux_sym_ref_value_token1, 141), (aux_sym_ref_addr_token1, 143),
     (anon_sym_DOT_DOT_DOT, 145), (aux_sym_unary_token1, 63), (sym_c_style_comment, 3),
     (sym_pascal_style_comment, 3), (sym_pragma, 3), (sym__minus_before_base, 99),
     (sym__plus_before_base, 99)]"

lemma ts_parse_row_71_scan: "row_scan tokens_4_1 0 ts_parse_row_71 = Some (Suc (Suc (Suc (Suc (Suc (Suc 0))))))"
  unfolding ts_parse_row_71_def by simp

text \<open>Lines 62025 to 62149.\<close>

definition ts_parse_row_72 :: parse_row where
  "ts_parse_row_72 =
    [(sym_ERR_unexpected_this_in_path, 1132), (sym_ERR_unexpected_super_in_path, 1132),
     (sym_constant, 1189), (sym_numeric_literal, 1180), (sym_int_literal, 1182),
     (sym_int_kind, 10047), (sym_signed_int, 1200), (sym_real_literal, 1182),
     (sym_signed_real_value, 1183), (sym_bool_literal, 1180), (sym_bool_literal_with_string, 1185),
     (sym_bool_literal_with_numeric, 1185), (sym_char_literal, 1180), (sym_char_str, 1187),
     (sym_time_literal, 1180), (sym_duration, 1169), (sym_time, 1191), (sym_ltime, 1191),
     (sym_time_of_day, 1169), (sym_tod, 1192), (sym_ltod, 1192), (sym_date, 1169),
     (sym_short_date, 1193), (sym_long_date, 1193), (sym_date_and_time, 1169),
     (sym_short_date_and_time, 1194), (sym_long_date_and_time, 1194), (sym_int_type_name, 9449),
     (sym_sign_int_type_name, 2352), (sym_unsign_int_type_name, 2352), (sym_real_type_name, 10048),
     (sym_string_type_name, 10049), (sym_string_name, 2353), (sym_char_name, 2353),
     (sym_multibits_type_name, 9449), (sym_enum_value, 1189), (sym_direct_variable, 1149),
     (sym_ref_value, 1189), (sym_ref_addr, 1164), (sym_deref_expression, 1130),
     (sym_variable, 1146), (sym_var_access, 1130), (sym__expression, 1127),
     (sym_fold_expression, 1195), (sym_pack_element, 1195), (sym__primary_expression, 1195),
     (sym_parenthesized_expression, 1189), (sym_boolean_operator, 1195), (sym_or_operator, 1196),
     (sym_xor_operator, 1196), (sym_and_operator, 1196), (sym_comparison_operator, 1195),
     (sym_eq_operator, 1197), (sym_ord_operator, 1197), (sym_add_operator, 1195),
     (sym_mult_operator, 1195), (sym_power_operator, 1195), (sym_unary_operator, 1195),
     (sym_unary, 60), (sym_variable_access, 1189), (sym_func_call, 1189),
     (sym_begin_path_expression, 1138), (sym_invocation, 1145), (sym_any_invocation, 1139),
     (sym_this_invocation, 1136), (sym_super_invocation, 1136), (sym_super_body_invocation, 1139),
     (sym_path_expression, 1109), (sym_field_expression, 1130), (sym_index_expression, 1130),
     (sym_identifier, 101), (aux_sym_ERR_unexpected_this_in_path_token1, 103),
     (aux_sym_ERR_unexpected_super_in_path_token1, 105), (sym_line_comment, 3),
     (anon_sym_LPAREN, 107), (sym_unsigned_int, 109), (sym__explicit_signed_int, 109),
     (sym_binary_int, 111), (sym_octal_int, 111), (sym_hex_int, 113),
     (sym__explicit_signed_real, 115), (sym_real_value, 115),
     (aux_sym_bool_literal_with_string_token1, 117), (aux_sym_bool_literal_with_string_token2, 119),
     (aux_sym_bool_literal_with_string_token3, 119), (sym_s_byte_char_str, 121),
     (sym_d_byte_char_str, 121), (aux_sym_time_token1, 123), (anon_sym_PLUS, 63),
     (anon_sym_DASH, 63), (aux_sym_ltime_token1, 125), (aux_sym_tod_token1, 127),
     (aux_sym_ltod_token1, 129), (aux_sym_short_date_token1, 131), (aux_sym_long_date_token1, 133),
     (aux_sym_short_date_and_time_token1, 135), (aux_sym_long_date_and_time_token1, 137),
     (aux_sym_sign_int_type_name_token1, 79), (aux_sym_sign_int_type_name_token2, 79),
     (aux_sym_sign_int_type_name_token3, 79), (aux_sym_sign_int_type_name_token4, 79),
     (aux_sym_unsign_int_type_name_token1, 81), (aux_sym_unsign_int_type_name_token2, 81),
     (aux_sym_unsign_int_type_name_token3, 81), (aux_sym_unsign_int_type_name_token4, 81),
     (aux_sym_real_type_name_token1, 83), (aux_sym_real_type_name_token2, 83),
     (aux_sym_string_name_token1, 85), (aux_sym_char_name_token1, 87),
     (aux_sym_multibits_type_name_token1, 89), (aux_sym_multibits_type_name_token2, 89),
     (aux_sym_multibits_type_name_token3, 89), (aux_sym_multibits_type_name_token4, 89),
     (anon_sym_PERCENT, 139), (aux_sym_ref_value_token1, 141), (aux_sym_ref_addr_token1, 143),
     (anon_sym_DOT_DOT_DOT, 145), (aux_sym_unary_token1, 63), (sym_c_style_comment, 3),
     (sym_pascal_style_comment, 3), (sym_pragma, 3), (sym__minus_before_base, 99),
     (sym__plus_before_base, 99)]"

lemma ts_parse_row_72_scan: "row_scan tokens_4_1 0 ts_parse_row_72 = Some (Suc (Suc (Suc (Suc (Suc (Suc 0))))))"
  unfolding ts_parse_row_72_def by simp

text \<open>Lines 62150 to 62274.\<close>

definition ts_parse_row_73 :: parse_row where
  "ts_parse_row_73 =
    [(sym_ERR_unexpected_this_in_path, 2018), (sym_ERR_unexpected_super_in_path, 2018),
     (sym_constant, 2089), (sym_numeric_literal, 2090), (sym_int_literal, 2092),
     (sym_int_kind, 9320), (sym_signed_int, 2111), (sym_real_literal, 2092),
     (sym_signed_real_value, 2105), (sym_bool_literal, 2090), (sym_bool_literal_with_string, 2114),
     (sym_bool_literal_with_numeric, 2114), (sym_char_literal, 2090), (sym_char_str, 2120),
     (sym_time_literal, 2090), (sym_duration, 2123), (sym_time, 2087), (sym_ltime, 2087),
     (sym_time_of_day, 2123), (sym_tod, 2091), (sym_ltod, 2091), (sym_date, 2123),
     (sym_short_date, 2066), (sym_long_date, 2066), (sym_date_and_time, 2123),
     (sym_short_date_and_time, 2067), (sym_long_date_and_time, 2067), (sym_int_type_name, 9449),
     (sym_sign_int_type_name, 2352), (sym_unsign_int_type_name, 2352), (sym_real_type_name, 9455),
     (sym_string_type_name, 9457), (sym_string_name, 2353), (sym_char_name, 2353),
     (sym_multibits_type_name, 9449), (sym_enum_value, 2089), (sym_direct_variable, 2060),
     (sym_ref_value, 2089), (sym_ref_addr, 2096), (sym_deref_expression, 2016),
     (sym_variable, 2054), (sym_var_access, 2016), (sym__expression, 3339),
     (sym_fold_expression, 2088), (sym_pack_element, 2088), (sym__primary_expression, 2088),
     (sym_parenthesized_expression, 2089), (sym_boolean_operator, 2088), (sym_or_operator, 2093),
     (sym_xor_operator, 2093), (sym_and_operator, 2093), (sym_comparison_operator, 2088),
     (sym_eq_operator, 2102), (sym_ord_operator, 2102), (sym_add_operator, 2088),
     (sym_mult_operator, 2088), (sym_power_operator, 2088), (sym_unary_operator, 2088),
     (sym_unary, 61), (sym_variable_access, 2089), (sym_func_call, 2089),
     (sym_begin_path_expression, 2049), (sym_invocation, 2044), (sym_any_invocation, 2043),
     (sym_this_invocation, 2019), (sym_super_invocation, 2019), (sym_super_body_invocation, 2043),
     (sym_path_expression, 2002), (sym_field_expression, 2016), (sym_index_expression, 2016),
     (sym_identifier, 35), (aux_sym_ERR_unexpected_this_in_path_token1, 37),
     (aux_sym_ERR_unexpected_super_in_path_token1, 39), (sym_line_comment, 3),
     (anon_sym_LPAREN, 43), (sym_unsigned_int, 47), (sym__explicit_signed_int, 47),
     (sym_binary_int, 49), (sym_octal_int, 49), (sym_hex_int, 51), (sym__explicit_signed_real, 53),
     (sym_real_value, 53), (aux_sym_bool_literal_with_string_token1, 55),
     (aux_sym_bool_literal_with_string_token2, 57), (aux_sym_bool_literal_with_string_token3, 57),
     (sym_s_byte_char_str, 59), (sym_d_byte_char_str, 59), (aux_sym_time_token1, 61),
     (anon_sym_PLUS, 63), (anon_sym_DASH, 63), (aux_sym_ltime_token1, 65), (aux_sym_tod_token1, 67),
     (aux_sym_ltod_token1, 69), (aux_sym_short_date_token1, 71), (aux_sym_long_date_token1, 73),
     (aux_sym_short_date_and_time_token1, 75), (aux_sym_long_date_and_time_token1, 77),
     (aux_sym_sign_int_type_name_token1, 79), (aux_sym_sign_int_type_name_token2, 79),
     (aux_sym_sign_int_type_name_token3, 79), (aux_sym_sign_int_type_name_token4, 79),
     (aux_sym_unsign_int_type_name_token1, 81), (aux_sym_unsign_int_type_name_token2, 81),
     (aux_sym_unsign_int_type_name_token3, 81), (aux_sym_unsign_int_type_name_token4, 81),
     (aux_sym_real_type_name_token1, 83), (aux_sym_real_type_name_token2, 83),
     (aux_sym_string_name_token1, 85), (aux_sym_char_name_token1, 87),
     (aux_sym_multibits_type_name_token1, 89), (aux_sym_multibits_type_name_token2, 89),
     (aux_sym_multibits_type_name_token3, 89), (aux_sym_multibits_type_name_token4, 89),
     (anon_sym_PERCENT, 91), (aux_sym_ref_value_token1, 93), (aux_sym_ref_addr_token1, 95),
     (anon_sym_DOT_DOT_DOT, 97), (aux_sym_unary_token1, 63), (sym_c_style_comment, 3),
     (sym_pascal_style_comment, 3), (sym_pragma, 3), (sym__minus_before_base, 99),
     (sym__plus_before_base, 99)]"

lemma ts_parse_row_73_scan: "row_scan tokens_4_1 0 ts_parse_row_73 = Some (Suc (Suc (Suc (Suc (Suc (Suc 0))))))"
  unfolding ts_parse_row_73_def by simp

text \<open>Lines 62275 to 62399.\<close>

definition ts_parse_row_74 :: parse_row where
  "ts_parse_row_74 =
    [(sym_ERR_unexpected_this_in_path, 2018), (sym_ERR_unexpected_super_in_path, 2018),
     (sym_constant, 2089), (sym_numeric_literal, 2090), (sym_int_literal, 2092),
     (sym_int_kind, 9320), (sym_signed_int, 2111), (sym_real_literal, 2092),
     (sym_signed_real_value, 2105), (sym_bool_literal, 2090), (sym_bool_literal_with_string, 2114),
     (sym_bool_literal_with_numeric, 2114), (sym_char_literal, 2090), (sym_char_str, 2120),
     (sym_time_literal, 2090), (sym_duration, 2123), (sym_time, 2087), (sym_ltime, 2087),
     (sym_time_of_day, 2123), (sym_tod, 2091), (sym_ltod, 2091), (sym_date, 2123),
     (sym_short_date, 2066), (sym_long_date, 2066), (sym_date_and_time, 2123),
     (sym_short_date_and_time, 2067), (sym_long_date_and_time, 2067), (sym_int_type_name, 9449),
     (sym_sign_int_type_name, 2352), (sym_unsign_int_type_name, 2352), (sym_real_type_name, 9455),
     (sym_string_type_name, 9457), (sym_string_name, 2353), (sym_char_name, 2353),
     (sym_multibits_type_name, 9449), (sym_enum_value, 2089), (sym_direct_variable, 2060),
     (sym_ref_value, 2089), (sym_ref_addr, 2096), (sym_deref_expression, 2016),
     (sym_variable, 2054), (sym_var_access, 2016), (sym__expression, 3310),
     (sym_fold_expression, 2088), (sym_pack_element, 2088), (sym__primary_expression, 2088),
     (sym_parenthesized_expression, 2089), (sym_boolean_operator, 2088), (sym_or_operator, 2093),
     (sym_xor_operator, 2093), (sym_and_operator, 2093), (sym_comparison_operator, 2088),
     (sym_eq_operator, 2102), (sym_ord_operator, 2102), (sym_add_operator, 2088),
     (sym_mult_operator, 2088), (sym_power_operator, 2088), (sym_unary_operator, 2088),
     (sym_unary, 61), (sym_variable_access, 2089), (sym_func_call, 2089),
     (sym_begin_path_expression, 2049), (sym_invocation, 2044), (sym_any_invocation, 2043),
     (sym_this_invocation, 2019), (sym_super_invocation, 2019), (sym_super_body_invocation, 2043),
     (sym_path_expression, 2002), (sym_field_expression, 2016), (sym_index_expression, 2016),
     (sym_identifier, 35), (aux_sym_ERR_unexpected_this_in_path_token1, 37),
     (aux_sym_ERR_unexpected_super_in_path_token1, 39), (sym_line_comment, 3),
     (anon_sym_LPAREN, 43), (sym_unsigned_int, 47), (sym__explicit_signed_int, 47),
     (sym_binary_int, 49), (sym_octal_int, 49), (sym_hex_int, 51), (sym__explicit_signed_real, 53),
     (sym_real_value, 53), (aux_sym_bool_literal_with_string_token1, 55),
     (aux_sym_bool_literal_with_string_token2, 57), (aux_sym_bool_literal_with_string_token3, 57),
     (sym_s_byte_char_str, 59), (sym_d_byte_char_str, 59), (aux_sym_time_token1, 61),
     (anon_sym_PLUS, 63), (anon_sym_DASH, 63), (aux_sym_ltime_token1, 65), (aux_sym_tod_token1, 67),
     (aux_sym_ltod_token1, 69), (aux_sym_short_date_token1, 71), (aux_sym_long_date_token1, 73),
     (aux_sym_short_date_and_time_token1, 75), (aux_sym_long_date_and_time_token1, 77),
     (aux_sym_sign_int_type_name_token1, 79), (aux_sym_sign_int_type_name_token2, 79),
     (aux_sym_sign_int_type_name_token3, 79), (aux_sym_sign_int_type_name_token4, 79),
     (aux_sym_unsign_int_type_name_token1, 81), (aux_sym_unsign_int_type_name_token2, 81),
     (aux_sym_unsign_int_type_name_token3, 81), (aux_sym_unsign_int_type_name_token4, 81),
     (aux_sym_real_type_name_token1, 83), (aux_sym_real_type_name_token2, 83),
     (aux_sym_string_name_token1, 85), (aux_sym_char_name_token1, 87),
     (aux_sym_multibits_type_name_token1, 89), (aux_sym_multibits_type_name_token2, 89),
     (aux_sym_multibits_type_name_token3, 89), (aux_sym_multibits_type_name_token4, 89),
     (anon_sym_PERCENT, 91), (aux_sym_ref_value_token1, 93), (aux_sym_ref_addr_token1, 95),
     (anon_sym_DOT_DOT_DOT, 97), (aux_sym_unary_token1, 63), (sym_c_style_comment, 3),
     (sym_pascal_style_comment, 3), (sym_pragma, 3), (sym__minus_before_base, 99),
     (sym__plus_before_base, 99)]"

lemma ts_parse_row_74_scan: "row_scan tokens_4_1 0 ts_parse_row_74 = Some (Suc (Suc (Suc (Suc (Suc (Suc 0))))))"
  unfolding ts_parse_row_74_def by simp

text \<open>Lines 62400 to 62524.\<close>

definition ts_parse_row_75 :: parse_row where
  "ts_parse_row_75 =
    [(sym_ERR_unexpected_this_in_path, 2018), (sym_ERR_unexpected_super_in_path, 2018),
     (sym_constant, 2089), (sym_numeric_literal, 2090), (sym_int_literal, 2092),
     (sym_int_kind, 9320), (sym_signed_int, 2111), (sym_real_literal, 2092),
     (sym_signed_real_value, 2105), (sym_bool_literal, 2090), (sym_bool_literal_with_string, 2114),
     (sym_bool_literal_with_numeric, 2114), (sym_char_literal, 2090), (sym_char_str, 2120),
     (sym_time_literal, 2090), (sym_duration, 2123), (sym_time, 2087), (sym_ltime, 2087),
     (sym_time_of_day, 2123), (sym_tod, 2091), (sym_ltod, 2091), (sym_date, 2123),
     (sym_short_date, 2066), (sym_long_date, 2066), (sym_date_and_time, 2123),
     (sym_short_date_and_time, 2067), (sym_long_date_and_time, 2067), (sym_int_type_name, 9449),
     (sym_sign_int_type_name, 2352), (sym_unsign_int_type_name, 2352), (sym_real_type_name, 9455),
     (sym_string_type_name, 9457), (sym_string_name, 2353), (sym_char_name, 2353),
     (sym_multibits_type_name, 9449), (sym_enum_value, 2089), (sym_direct_variable, 2060),
     (sym_ref_value, 2089), (sym_ref_addr, 2096), (sym_deref_expression, 2016),
     (sym_variable, 2054), (sym_var_access, 2016), (sym__expression, 2029),
     (sym_fold_expression, 2088), (sym_pack_element, 2088), (sym__primary_expression, 2088),
     (sym_parenthesized_expression, 2089), (sym_boolean_operator, 2088), (sym_or_operator, 2093),
     (sym_xor_operator, 2093), (sym_and_operator, 2093), (sym_comparison_operator, 2088),
     (sym_eq_operator, 2102), (sym_ord_operator, 2102), (sym_add_operator, 2088),
     (sym_mult_operator, 2088), (sym_power_operator, 2088), (sym_unary_operator, 2088),
     (sym_unary, 61), (sym_variable_access, 2089), (sym_func_call, 2089),
     (sym_begin_path_expression, 2049), (sym_invocation, 2044), (sym_any_invocation, 2043),
     (sym_this_invocation, 2019), (sym_super_invocation, 2019), (sym_super_body_invocation, 2043),
     (sym_path_expression, 2002), (sym_field_expression, 2016), (sym_index_expression, 2016),
     (sym_identifier, 35), (aux_sym_ERR_unexpected_this_in_path_token1, 37),
     (aux_sym_ERR_unexpected_super_in_path_token1, 39), (sym_line_comment, 3),
     (anon_sym_LPAREN, 43), (sym_unsigned_int, 47), (sym__explicit_signed_int, 47),
     (sym_binary_int, 49), (sym_octal_int, 49), (sym_hex_int, 51), (sym__explicit_signed_real, 53),
     (sym_real_value, 53), (aux_sym_bool_literal_with_string_token1, 55),
     (aux_sym_bool_literal_with_string_token2, 57), (aux_sym_bool_literal_with_string_token3, 57),
     (sym_s_byte_char_str, 59), (sym_d_byte_char_str, 59), (aux_sym_time_token1, 61),
     (anon_sym_PLUS, 63), (anon_sym_DASH, 63), (aux_sym_ltime_token1, 65), (aux_sym_tod_token1, 67),
     (aux_sym_ltod_token1, 69), (aux_sym_short_date_token1, 71), (aux_sym_long_date_token1, 73),
     (aux_sym_short_date_and_time_token1, 75), (aux_sym_long_date_and_time_token1, 77),
     (aux_sym_sign_int_type_name_token1, 79), (aux_sym_sign_int_type_name_token2, 79),
     (aux_sym_sign_int_type_name_token3, 79), (aux_sym_sign_int_type_name_token4, 79),
     (aux_sym_unsign_int_type_name_token1, 81), (aux_sym_unsign_int_type_name_token2, 81),
     (aux_sym_unsign_int_type_name_token3, 81), (aux_sym_unsign_int_type_name_token4, 81),
     (aux_sym_real_type_name_token1, 83), (aux_sym_real_type_name_token2, 83),
     (aux_sym_string_name_token1, 85), (aux_sym_char_name_token1, 87),
     (aux_sym_multibits_type_name_token1, 89), (aux_sym_multibits_type_name_token2, 89),
     (aux_sym_multibits_type_name_token3, 89), (aux_sym_multibits_type_name_token4, 89),
     (anon_sym_PERCENT, 91), (aux_sym_ref_value_token1, 93), (aux_sym_ref_addr_token1, 95),
     (anon_sym_DOT_DOT_DOT, 97), (aux_sym_unary_token1, 63), (sym_c_style_comment, 3),
     (sym_pascal_style_comment, 3), (sym_pragma, 3), (sym__minus_before_base, 99),
     (sym__plus_before_base, 99)]"

lemma ts_parse_row_75_scan: "row_scan tokens_4_1 0 ts_parse_row_75 = Some (Suc (Suc (Suc (Suc (Suc (Suc 0))))))"
  unfolding ts_parse_row_75_def by simp

text \<open>Lines 62525 to 62649.\<close>

definition ts_parse_row_76 :: parse_row where
  "ts_parse_row_76 =
    [(sym_ERR_unexpected_this_in_path, 2018), (sym_ERR_unexpected_super_in_path, 2018),
     (sym_constant, 2089), (sym_numeric_literal, 2090), (sym_int_literal, 2092),
     (sym_int_kind, 9320), (sym_signed_int, 2111), (sym_real_literal, 2092),
     (sym_signed_real_value, 2105), (sym_bool_literal, 2090), (sym_bool_literal_with_string, 2114),
     (sym_bool_literal_with_numeric, 2114), (sym_char_literal, 2090), (sym_char_str, 2120),
     (sym_time_literal, 2090), (sym_duration, 2123), (sym_time, 2087), (sym_ltime, 2087),
     (sym_time_of_day, 2123), (sym_tod, 2091), (sym_ltod, 2091), (sym_date, 2123),
     (sym_short_date, 2066), (sym_long_date, 2066), (sym_date_and_time, 2123),
     (sym_short_date_and_time, 2067), (sym_long_date_and_time, 2067), (sym_int_type_name, 9449),
     (sym_sign_int_type_name, 2352), (sym_unsign_int_type_name, 2352), (sym_real_type_name, 9455),
     (sym_string_type_name, 9457), (sym_string_name, 2353), (sym_char_name, 2353),
     (sym_multibits_type_name, 9449), (sym_enum_value, 2089), (sym_direct_variable, 2060),
     (sym_ref_value, 2089), (sym_ref_addr, 2096), (sym_deref_expression, 2016),
     (sym_variable, 2054), (sym_var_access, 2016), (sym__expression, 2033),
     (sym_fold_expression, 2088), (sym_pack_element, 2088), (sym__primary_expression, 2088),
     (sym_parenthesized_expression, 2089), (sym_boolean_operator, 2088), (sym_or_operator, 2093),
     (sym_xor_operator, 2093), (sym_and_operator, 2093), (sym_comparison_operator, 2088),
     (sym_eq_operator, 2102), (sym_ord_operator, 2102), (sym_add_operator, 2088),
     (sym_mult_operator, 2088), (sym_power_operator, 2088), (sym_unary_operator, 2088),
     (sym_unary, 61), (sym_variable_access, 2089), (sym_func_call, 2089),
     (sym_begin_path_expression, 2049), (sym_invocation, 2044), (sym_any_invocation, 2043),
     (sym_this_invocation, 2019), (sym_super_invocation, 2019), (sym_super_body_invocation, 2043),
     (sym_path_expression, 2002), (sym_field_expression, 2016), (sym_index_expression, 2016),
     (sym_identifier, 35), (aux_sym_ERR_unexpected_this_in_path_token1, 37),
     (aux_sym_ERR_unexpected_super_in_path_token1, 39), (sym_line_comment, 3),
     (anon_sym_LPAREN, 43), (sym_unsigned_int, 47), (sym__explicit_signed_int, 47),
     (sym_binary_int, 49), (sym_octal_int, 49), (sym_hex_int, 51), (sym__explicit_signed_real, 53),
     (sym_real_value, 53), (aux_sym_bool_literal_with_string_token1, 55),
     (aux_sym_bool_literal_with_string_token2, 57), (aux_sym_bool_literal_with_string_token3, 57),
     (sym_s_byte_char_str, 59), (sym_d_byte_char_str, 59), (aux_sym_time_token1, 61),
     (anon_sym_PLUS, 63), (anon_sym_DASH, 63), (aux_sym_ltime_token1, 65), (aux_sym_tod_token1, 67),
     (aux_sym_ltod_token1, 69), (aux_sym_short_date_token1, 71), (aux_sym_long_date_token1, 73),
     (aux_sym_short_date_and_time_token1, 75), (aux_sym_long_date_and_time_token1, 77),
     (aux_sym_sign_int_type_name_token1, 79), (aux_sym_sign_int_type_name_token2, 79),
     (aux_sym_sign_int_type_name_token3, 79), (aux_sym_sign_int_type_name_token4, 79),
     (aux_sym_unsign_int_type_name_token1, 81), (aux_sym_unsign_int_type_name_token2, 81),
     (aux_sym_unsign_int_type_name_token3, 81), (aux_sym_unsign_int_type_name_token4, 81),
     (aux_sym_real_type_name_token1, 83), (aux_sym_real_type_name_token2, 83),
     (aux_sym_string_name_token1, 85), (aux_sym_char_name_token1, 87),
     (aux_sym_multibits_type_name_token1, 89), (aux_sym_multibits_type_name_token2, 89),
     (aux_sym_multibits_type_name_token3, 89), (aux_sym_multibits_type_name_token4, 89),
     (anon_sym_PERCENT, 91), (aux_sym_ref_value_token1, 93), (aux_sym_ref_addr_token1, 95),
     (anon_sym_DOT_DOT_DOT, 97), (aux_sym_unary_token1, 63), (sym_c_style_comment, 3),
     (sym_pascal_style_comment, 3), (sym_pragma, 3), (sym__minus_before_base, 99),
     (sym__plus_before_base, 99)]"

lemma ts_parse_row_76_scan: "row_scan tokens_4_1 0 ts_parse_row_76 = Some (Suc (Suc (Suc (Suc (Suc (Suc 0))))))"
  unfolding ts_parse_row_76_def by simp

text \<open>Lines 62650 to 62774.\<close>

definition ts_parse_row_77 :: parse_row where
  "ts_parse_row_77 =
    [(sym_ERR_unexpected_this_in_path, 2018), (sym_ERR_unexpected_super_in_path, 2018),
     (sym_constant, 2089), (sym_numeric_literal, 2090), (sym_int_literal, 2092),
     (sym_int_kind, 9320), (sym_signed_int, 2111), (sym_real_literal, 2092),
     (sym_signed_real_value, 2105), (sym_bool_literal, 2090), (sym_bool_literal_with_string, 2114),
     (sym_bool_literal_with_numeric, 2114), (sym_char_literal, 2090), (sym_char_str, 2120),
     (sym_time_literal, 2090), (sym_duration, 2123), (sym_time, 2087), (sym_ltime, 2087),
     (sym_time_of_day, 2123), (sym_tod, 2091), (sym_ltod, 2091), (sym_date, 2123),
     (sym_short_date, 2066), (sym_long_date, 2066), (sym_date_and_time, 2123),
     (sym_short_date_and_time, 2067), (sym_long_date_and_time, 2067), (sym_int_type_name, 9449),
     (sym_sign_int_type_name, 2352), (sym_unsign_int_type_name, 2352), (sym_real_type_name, 9455),
     (sym_string_type_name, 9457), (sym_string_name, 2353), (sym_char_name, 2353),
     (sym_multibits_type_name, 9449), (sym_enum_value, 2089), (sym_direct_variable, 2060),
     (sym_ref_value, 2089), (sym_ref_addr, 2096), (sym_deref_expression, 2016),
     (sym_variable, 2054), (sym_var_access, 2016), (sym__expression, 2034),
     (sym_fold_expression, 2088), (sym_pack_element, 2088), (sym__primary_expression, 2088),
     (sym_parenthesized_expression, 2089), (sym_boolean_operator, 2088), (sym_or_operator, 2093),
     (sym_xor_operator, 2093), (sym_and_operator, 2093), (sym_comparison_operator, 2088),
     (sym_eq_operator, 2102), (sym_ord_operator, 2102), (sym_add_operator, 2088),
     (sym_mult_operator, 2088), (sym_power_operator, 2088), (sym_unary_operator, 2088),
     (sym_unary, 61), (sym_variable_access, 2089), (sym_func_call, 2089),
     (sym_begin_path_expression, 2049), (sym_invocation, 2044), (sym_any_invocation, 2043),
     (sym_this_invocation, 2019), (sym_super_invocation, 2019), (sym_super_body_invocation, 2043),
     (sym_path_expression, 2002), (sym_field_expression, 2016), (sym_index_expression, 2016),
     (sym_identifier, 35), (aux_sym_ERR_unexpected_this_in_path_token1, 37),
     (aux_sym_ERR_unexpected_super_in_path_token1, 39), (sym_line_comment, 3),
     (anon_sym_LPAREN, 43), (sym_unsigned_int, 47), (sym__explicit_signed_int, 47),
     (sym_binary_int, 49), (sym_octal_int, 49), (sym_hex_int, 51), (sym__explicit_signed_real, 53),
     (sym_real_value, 53), (aux_sym_bool_literal_with_string_token1, 55),
     (aux_sym_bool_literal_with_string_token2, 57), (aux_sym_bool_literal_with_string_token3, 57),
     (sym_s_byte_char_str, 59), (sym_d_byte_char_str, 59), (aux_sym_time_token1, 61),
     (anon_sym_PLUS, 63), (anon_sym_DASH, 63), (aux_sym_ltime_token1, 65), (aux_sym_tod_token1, 67),
     (aux_sym_ltod_token1, 69), (aux_sym_short_date_token1, 71), (aux_sym_long_date_token1, 73),
     (aux_sym_short_date_and_time_token1, 75), (aux_sym_long_date_and_time_token1, 77),
     (aux_sym_sign_int_type_name_token1, 79), (aux_sym_sign_int_type_name_token2, 79),
     (aux_sym_sign_int_type_name_token3, 79), (aux_sym_sign_int_type_name_token4, 79),
     (aux_sym_unsign_int_type_name_token1, 81), (aux_sym_unsign_int_type_name_token2, 81),
     (aux_sym_unsign_int_type_name_token3, 81), (aux_sym_unsign_int_type_name_token4, 81),
     (aux_sym_real_type_name_token1, 83), (aux_sym_real_type_name_token2, 83),
     (aux_sym_string_name_token1, 85), (aux_sym_char_name_token1, 87),
     (aux_sym_multibits_type_name_token1, 89), (aux_sym_multibits_type_name_token2, 89),
     (aux_sym_multibits_type_name_token3, 89), (aux_sym_multibits_type_name_token4, 89),
     (anon_sym_PERCENT, 91), (aux_sym_ref_value_token1, 93), (aux_sym_ref_addr_token1, 95),
     (anon_sym_DOT_DOT_DOT, 97), (aux_sym_unary_token1, 63), (sym_c_style_comment, 3),
     (sym_pascal_style_comment, 3), (sym_pragma, 3), (sym__minus_before_base, 99),
     (sym__plus_before_base, 99)]"

lemma ts_parse_row_77_scan: "row_scan tokens_4_1 0 ts_parse_row_77 = Some (Suc (Suc (Suc (Suc (Suc (Suc 0))))))"
  unfolding ts_parse_row_77_def by simp

text \<open>Lines 62775 to 62899.\<close>

definition ts_parse_row_78 :: parse_row where
  "ts_parse_row_78 =
    [(sym_ERR_unexpected_this_in_path, 2018), (sym_ERR_unexpected_super_in_path, 2018),
     (sym_constant, 2089), (sym_numeric_literal, 2090), (sym_int_literal, 2092),
     (sym_int_kind, 9320), (sym_signed_int, 2111), (sym_real_literal, 2092),
     (sym_signed_real_value, 2105), (sym_bool_literal, 2090), (sym_bool_literal_with_string, 2114),
     (sym_bool_literal_with_numeric, 2114), (sym_char_literal, 2090), (sym_char_str, 2120),
     (sym_time_literal, 2090), (sym_duration, 2123), (sym_time, 2087), (sym_ltime, 2087),
     (sym_time_of_day, 2123), (sym_tod, 2091), (sym_ltod, 2091), (sym_date, 2123),
     (sym_short_date, 2066), (sym_long_date, 2066), (sym_date_and_time, 2123),
     (sym_short_date_and_time, 2067), (sym_long_date_and_time, 2067), (sym_int_type_name, 9449),
     (sym_sign_int_type_name, 2352), (sym_unsign_int_type_name, 2352), (sym_real_type_name, 9455),
     (sym_string_type_name, 9457), (sym_string_name, 2353), (sym_char_name, 2353),
     (sym_multibits_type_name, 9449), (sym_enum_value, 2089), (sym_direct_variable, 2060),
     (sym_ref_value, 2089), (sym_ref_addr, 2096), (sym_deref_expression, 2016),
     (sym_variable, 2054), (sym_var_access, 2016), (sym__expression, 3336),
     (sym_fold_expression, 2088), (sym_pack_element, 2088), (sym__primary_expression, 2088),
     (sym_parenthesized_expression, 2089), (sym_boolean_operator, 2088), (sym_or_operator, 2093),
     (sym_xor_operator, 2093), (sym_and_operator, 2093), (sym_comparison_operator, 2088),
     (sym_eq_operator, 2102), (sym_ord_operator, 2102), (sym_add_operator, 2088),
     (sym_mult_operator, 2088), (sym_power_operator, 2088), (sym_unary_operator, 2088),
     (sym_unary, 61), (sym_variable_access, 2089), (sym_func_call, 2089),
     (sym_begin_path_expression, 2049), (sym_invocation, 2044), (sym_any_invocation, 2043),
     (sym_this_invocation, 2019), (sym_super_invocation, 2019), (sym_super_body_invocation, 2043),
     (sym_path_expression, 2002), (sym_field_expression, 2016), (sym_index_expression, 2016),
     (sym_identifier, 35), (aux_sym_ERR_unexpected_this_in_path_token1, 37),
     (aux_sym_ERR_unexpected_super_in_path_token1, 39), (sym_line_comment, 3),
     (anon_sym_LPAREN, 43), (sym_unsigned_int, 47), (sym__explicit_signed_int, 47),
     (sym_binary_int, 49), (sym_octal_int, 49), (sym_hex_int, 51), (sym__explicit_signed_real, 53),
     (sym_real_value, 53), (aux_sym_bool_literal_with_string_token1, 55),
     (aux_sym_bool_literal_with_string_token2, 57), (aux_sym_bool_literal_with_string_token3, 57),
     (sym_s_byte_char_str, 59), (sym_d_byte_char_str, 59), (aux_sym_time_token1, 61),
     (anon_sym_PLUS, 63), (anon_sym_DASH, 63), (aux_sym_ltime_token1, 65), (aux_sym_tod_token1, 67),
     (aux_sym_ltod_token1, 69), (aux_sym_short_date_token1, 71), (aux_sym_long_date_token1, 73),
     (aux_sym_short_date_and_time_token1, 75), (aux_sym_long_date_and_time_token1, 77),
     (aux_sym_sign_int_type_name_token1, 79), (aux_sym_sign_int_type_name_token2, 79),
     (aux_sym_sign_int_type_name_token3, 79), (aux_sym_sign_int_type_name_token4, 79),
     (aux_sym_unsign_int_type_name_token1, 81), (aux_sym_unsign_int_type_name_token2, 81),
     (aux_sym_unsign_int_type_name_token3, 81), (aux_sym_unsign_int_type_name_token4, 81),
     (aux_sym_real_type_name_token1, 83), (aux_sym_real_type_name_token2, 83),
     (aux_sym_string_name_token1, 85), (aux_sym_char_name_token1, 87),
     (aux_sym_multibits_type_name_token1, 89), (aux_sym_multibits_type_name_token2, 89),
     (aux_sym_multibits_type_name_token3, 89), (aux_sym_multibits_type_name_token4, 89),
     (anon_sym_PERCENT, 91), (aux_sym_ref_value_token1, 93), (aux_sym_ref_addr_token1, 95),
     (anon_sym_DOT_DOT_DOT, 97), (aux_sym_unary_token1, 63), (sym_c_style_comment, 3),
     (sym_pascal_style_comment, 3), (sym_pragma, 3), (sym__minus_before_base, 99),
     (sym__plus_before_base, 99)]"

lemma ts_parse_row_78_scan: "row_scan tokens_4_1 0 ts_parse_row_78 = Some (Suc (Suc (Suc (Suc (Suc (Suc 0))))))"
  unfolding ts_parse_row_78_def by simp

text \<open>Lines 62900 to 63024.\<close>

definition ts_parse_row_79 :: parse_row where
  "ts_parse_row_79 =
    [(sym_ERR_unexpected_this_in_path, 2018), (sym_ERR_unexpected_super_in_path, 2018),
     (sym_constant, 2089), (sym_numeric_literal, 2090), (sym_int_literal, 2092),
     (sym_int_kind, 9320), (sym_signed_int, 2111), (sym_real_literal, 2092),
     (sym_signed_real_value, 2105), (sym_bool_literal, 2090), (sym_bool_literal_with_string, 2114),
     (sym_bool_literal_with_numeric, 2114), (sym_char_literal, 2090), (sym_char_str, 2120),
     (sym_time_literal, 2090), (sym_duration, 2123), (sym_time, 2087), (sym_ltime, 2087),
     (sym_time_of_day, 2123), (sym_tod, 2091), (sym_ltod, 2091), (sym_date, 2123),
     (sym_short_date, 2066), (sym_long_date, 2066), (sym_date_and_time, 2123),
     (sym_short_date_and_time, 2067), (sym_long_date_and_time, 2067), (sym_int_type_name, 9449),
     (sym_sign_int_type_name, 2352), (sym_unsign_int_type_name, 2352), (sym_real_type_name, 9455),
     (sym_string_type_name, 9457), (sym_string_name, 2353), (sym_char_name, 2353),
     (sym_multibits_type_name, 9449), (sym_enum_value, 2089), (sym_direct_variable, 2060),
     (sym_ref_value, 2089), (sym_ref_addr, 2096), (sym_deref_expression, 2016),
     (sym_variable, 2054), (sym_var_access, 2016), (sym__expression, 2039),
     (sym_fold_expression, 2088), (sym_pack_element, 2088), (sym__primary_expression, 2088),
     (sym_parenthesized_expression, 2089), (sym_boolean_operator, 2088), (sym_or_operator, 2093),
     (sym_xor_operator, 2093), (sym_and_operator, 2093), (sym_comparison_operator, 2088),
     (sym_eq_operator, 2102), (sym_ord_operator, 2102), (sym_add_operator, 2088),
     (sym_mult_operator, 2088), (sym_power_operator, 2088), (sym_unary_operator, 2088),
     (sym_unary, 61), (sym_variable_access, 2089), (sym_func_call, 2089),
     (sym_begin_path_expression, 2049), (sym_invocation, 2044), (sym_any_invocation, 2043),
     (sym_this_invocation, 2019), (sym_super_invocation, 2019), (sym_super_body_invocation, 2043),
     (sym_path_expression, 2002), (sym_field_expression, 2016), (sym_index_expression, 2016),
     (sym_identifier, 35), (aux_sym_ERR_unexpected_this_in_path_token1, 37),
     (aux_sym_ERR_unexpected_super_in_path_token1, 39), (sym_line_comment, 3),
     (anon_sym_LPAREN, 43), (sym_unsigned_int, 47), (sym__explicit_signed_int, 47),
     (sym_binary_int, 49), (sym_octal_int, 49), (sym_hex_int, 51), (sym__explicit_signed_real, 53),
     (sym_real_value, 53), (aux_sym_bool_literal_with_string_token1, 55),
     (aux_sym_bool_literal_with_string_token2, 57), (aux_sym_bool_literal_with_string_token3, 57),
     (sym_s_byte_char_str, 59), (sym_d_byte_char_str, 59), (aux_sym_time_token1, 61),
     (anon_sym_PLUS, 63), (anon_sym_DASH, 63), (aux_sym_ltime_token1, 65), (aux_sym_tod_token1, 67),
     (aux_sym_ltod_token1, 69), (aux_sym_short_date_token1, 71), (aux_sym_long_date_token1, 73),
     (aux_sym_short_date_and_time_token1, 75), (aux_sym_long_date_and_time_token1, 77),
     (aux_sym_sign_int_type_name_token1, 79), (aux_sym_sign_int_type_name_token2, 79),
     (aux_sym_sign_int_type_name_token3, 79), (aux_sym_sign_int_type_name_token4, 79),
     (aux_sym_unsign_int_type_name_token1, 81), (aux_sym_unsign_int_type_name_token2, 81),
     (aux_sym_unsign_int_type_name_token3, 81), (aux_sym_unsign_int_type_name_token4, 81),
     (aux_sym_real_type_name_token1, 83), (aux_sym_real_type_name_token2, 83),
     (aux_sym_string_name_token1, 85), (aux_sym_char_name_token1, 87),
     (aux_sym_multibits_type_name_token1, 89), (aux_sym_multibits_type_name_token2, 89),
     (aux_sym_multibits_type_name_token3, 89), (aux_sym_multibits_type_name_token4, 89),
     (anon_sym_PERCENT, 91), (aux_sym_ref_value_token1, 93), (aux_sym_ref_addr_token1, 95),
     (anon_sym_DOT_DOT_DOT, 97), (aux_sym_unary_token1, 63), (sym_c_style_comment, 3),
     (sym_pascal_style_comment, 3), (sym_pragma, 3), (sym__minus_before_base, 99),
     (sym__plus_before_base, 99)]"

lemma ts_parse_row_79_scan: "row_scan tokens_4_1 0 ts_parse_row_79 = Some (Suc (Suc (Suc (Suc (Suc (Suc 0))))))"
  unfolding ts_parse_row_79_def by simp

text \<open>Lines 63025 to 63149.\<close>

definition ts_parse_row_80 :: parse_row where
  "ts_parse_row_80 =
    [(sym_ERR_unexpected_this_in_path, 2018), (sym_ERR_unexpected_super_in_path, 2018),
     (sym_constant, 2089), (sym_numeric_literal, 2090), (sym_int_literal, 2092),
     (sym_int_kind, 9320), (sym_signed_int, 2111), (sym_real_literal, 2092),
     (sym_signed_real_value, 2105), (sym_bool_literal, 2090), (sym_bool_literal_with_string, 2114),
     (sym_bool_literal_with_numeric, 2114), (sym_char_literal, 2090), (sym_char_str, 2120),
     (sym_time_literal, 2090), (sym_duration, 2123), (sym_time, 2087), (sym_ltime, 2087),
     (sym_time_of_day, 2123), (sym_tod, 2091), (sym_ltod, 2091), (sym_date, 2123),
     (sym_short_date, 2066), (sym_long_date, 2066), (sym_date_and_time, 2123),
     (sym_short_date_and_time, 2067), (sym_long_date_and_time, 2067), (sym_int_type_name, 9449),
     (sym_sign_int_type_name, 2352), (sym_unsign_int_type_name, 2352), (sym_real_type_name, 9455),
     (sym_string_type_name, 9457), (sym_string_name, 2353), (sym_char_name, 2353),
     (sym_multibits_type_name, 9449), (sym_enum_value, 2089), (sym_direct_variable, 2060),
     (sym_ref_value, 2089), (sym_ref_addr, 2096), (sym_deref_expression, 2016),
     (sym_variable, 2054), (sym_var_access, 2016), (sym__expression, 3340),
     (sym_fold_expression, 2088), (sym_pack_element, 2088), (sym__primary_expression, 2088),
     (sym_parenthesized_expression, 2089), (sym_boolean_operator, 2088), (sym_or_operator, 2093),
     (sym_xor_operator, 2093), (sym_and_operator, 2093), (sym_comparison_operator, 2088),
     (sym_eq_operator, 2102), (sym_ord_operator, 2102), (sym_add_operator, 2088),
     (sym_mult_operator, 2088), (sym_power_operator, 2088), (sym_unary_operator, 2088),
     (sym_unary, 61), (sym_variable_access, 2089), (sym_func_call, 2089),
     (sym_begin_path_expression, 2049), (sym_invocation, 2044), (sym_any_invocation, 2043),
     (sym_this_invocation, 2019), (sym_super_invocation, 2019), (sym_super_body_invocation, 2043),
     (sym_path_expression, 2002), (sym_field_expression, 2016), (sym_index_expression, 2016),
     (sym_identifier, 35), (aux_sym_ERR_unexpected_this_in_path_token1, 37),
     (aux_sym_ERR_unexpected_super_in_path_token1, 39), (sym_line_comment, 3),
     (anon_sym_LPAREN, 43), (sym_unsigned_int, 47), (sym__explicit_signed_int, 47),
     (sym_binary_int, 49), (sym_octal_int, 49), (sym_hex_int, 51), (sym__explicit_signed_real, 53),
     (sym_real_value, 53), (aux_sym_bool_literal_with_string_token1, 55),
     (aux_sym_bool_literal_with_string_token2, 57), (aux_sym_bool_literal_with_string_token3, 57),
     (sym_s_byte_char_str, 59), (sym_d_byte_char_str, 59), (aux_sym_time_token1, 61),
     (anon_sym_PLUS, 63), (anon_sym_DASH, 63), (aux_sym_ltime_token1, 65), (aux_sym_tod_token1, 67),
     (aux_sym_ltod_token1, 69), (aux_sym_short_date_token1, 71), (aux_sym_long_date_token1, 73),
     (aux_sym_short_date_and_time_token1, 75), (aux_sym_long_date_and_time_token1, 77),
     (aux_sym_sign_int_type_name_token1, 79), (aux_sym_sign_int_type_name_token2, 79),
     (aux_sym_sign_int_type_name_token3, 79), (aux_sym_sign_int_type_name_token4, 79),
     (aux_sym_unsign_int_type_name_token1, 81), (aux_sym_unsign_int_type_name_token2, 81),
     (aux_sym_unsign_int_type_name_token3, 81), (aux_sym_unsign_int_type_name_token4, 81),
     (aux_sym_real_type_name_token1, 83), (aux_sym_real_type_name_token2, 83),
     (aux_sym_string_name_token1, 85), (aux_sym_char_name_token1, 87),
     (aux_sym_multibits_type_name_token1, 89), (aux_sym_multibits_type_name_token2, 89),
     (aux_sym_multibits_type_name_token3, 89), (aux_sym_multibits_type_name_token4, 89),
     (anon_sym_PERCENT, 91), (aux_sym_ref_value_token1, 93), (aux_sym_ref_addr_token1, 95),
     (anon_sym_DOT_DOT_DOT, 97), (aux_sym_unary_token1, 63), (sym_c_style_comment, 3),
     (sym_pascal_style_comment, 3), (sym_pragma, 3), (sym__minus_before_base, 99),
     (sym__plus_before_base, 99)]"

lemma ts_parse_row_80_scan: "row_scan tokens_4_1 0 ts_parse_row_80 = Some (Suc (Suc (Suc (Suc (Suc (Suc 0))))))"
  unfolding ts_parse_row_80_def by simp

text \<open>Lines 63150 to 63274.\<close>

definition ts_parse_row_81 :: parse_row where
  "ts_parse_row_81 =
    [(sym_ERR_unexpected_this_in_path, 2018), (sym_ERR_unexpected_super_in_path, 2018),
     (sym_constant, 2089), (sym_numeric_literal, 2090), (sym_int_literal, 2092),
     (sym_int_kind, 9320), (sym_signed_int, 2111), (sym_real_literal, 2092),
     (sym_signed_real_value, 2105), (sym_bool_literal, 2090), (sym_bool_literal_with_string, 2114),
     (sym_bool_literal_with_numeric, 2114), (sym_char_literal, 2090), (sym_char_str, 2120),
     (sym_time_literal, 2090), (sym_duration, 2123), (sym_time, 2087), (sym_ltime, 2087),
     (sym_time_of_day, 2123), (sym_tod, 2091), (sym_ltod, 2091), (sym_date, 2123),
     (sym_short_date, 2066), (sym_long_date, 2066), (sym_date_and_time, 2123),
     (sym_short_date_and_time, 2067), (sym_long_date_and_time, 2067), (sym_int_type_name, 9449),
     (sym_sign_int_type_name, 2352), (sym_unsign_int_type_name, 2352), (sym_real_type_name, 9455),
     (sym_string_type_name, 9457), (sym_string_name, 2353), (sym_char_name, 2353),
     (sym_multibits_type_name, 9449), (sym_enum_value, 2089), (sym_direct_variable, 2060),
     (sym_ref_value, 2089), (sym_ref_addr, 2096), (sym_deref_expression, 2016),
     (sym_variable, 2054), (sym_var_access, 2016), (sym__expression, 2037),
     (sym_fold_expression, 2088), (sym_pack_element, 2088), (sym__primary_expression, 2088),
     (sym_parenthesized_expression, 2089), (sym_boolean_operator, 2088), (sym_or_operator, 2093),
     (sym_xor_operator, 2093), (sym_and_operator, 2093), (sym_comparison_operator, 2088),
     (sym_eq_operator, 2102), (sym_ord_operator, 2102), (sym_add_operator, 2088),
     (sym_mult_operator, 2088), (sym_power_operator, 2088), (sym_unary_operator, 2088),
     (sym_unary, 61), (sym_variable_access, 2089), (sym_func_call, 2089),
     (sym_begin_path_expression, 2049), (sym_invocation, 2044), (sym_any_invocation, 2043),
     (sym_this_invocation, 2019), (sym_super_invocation, 2019), (sym_super_body_invocation, 2043),
     (sym_path_expression, 2002), (sym_field_expression, 2016), (sym_index_expression, 2016),
     (sym_identifier, 35), (aux_sym_ERR_unexpected_this_in_path_token1, 37),
     (aux_sym_ERR_unexpected_super_in_path_token1, 39), (sym_line_comment, 3),
     (anon_sym_LPAREN, 43), (sym_unsigned_int, 47), (sym__explicit_signed_int, 47),
     (sym_binary_int, 49), (sym_octal_int, 49), (sym_hex_int, 51), (sym__explicit_signed_real, 53),
     (sym_real_value, 53), (aux_sym_bool_literal_with_string_token1, 55),
     (aux_sym_bool_literal_with_string_token2, 57), (aux_sym_bool_literal_with_string_token3, 57),
     (sym_s_byte_char_str, 59), (sym_d_byte_char_str, 59), (aux_sym_time_token1, 61),
     (anon_sym_PLUS, 63), (anon_sym_DASH, 63), (aux_sym_ltime_token1, 65), (aux_sym_tod_token1, 67),
     (aux_sym_ltod_token1, 69), (aux_sym_short_date_token1, 71), (aux_sym_long_date_token1, 73),
     (aux_sym_short_date_and_time_token1, 75), (aux_sym_long_date_and_time_token1, 77),
     (aux_sym_sign_int_type_name_token1, 79), (aux_sym_sign_int_type_name_token2, 79),
     (aux_sym_sign_int_type_name_token3, 79), (aux_sym_sign_int_type_name_token4, 79),
     (aux_sym_unsign_int_type_name_token1, 81), (aux_sym_unsign_int_type_name_token2, 81),
     (aux_sym_unsign_int_type_name_token3, 81), (aux_sym_unsign_int_type_name_token4, 81),
     (aux_sym_real_type_name_token1, 83), (aux_sym_real_type_name_token2, 83),
     (aux_sym_string_name_token1, 85), (aux_sym_char_name_token1, 87),
     (aux_sym_multibits_type_name_token1, 89), (aux_sym_multibits_type_name_token2, 89),
     (aux_sym_multibits_type_name_token3, 89), (aux_sym_multibits_type_name_token4, 89),
     (anon_sym_PERCENT, 91), (aux_sym_ref_value_token1, 93), (aux_sym_ref_addr_token1, 95),
     (anon_sym_DOT_DOT_DOT, 97), (aux_sym_unary_token1, 63), (sym_c_style_comment, 3),
     (sym_pascal_style_comment, 3), (sym_pragma, 3), (sym__minus_before_base, 99),
     (sym__plus_before_base, 99)]"

lemma ts_parse_row_81_scan: "row_scan tokens_4_1 0 ts_parse_row_81 = Some (Suc (Suc (Suc (Suc (Suc (Suc 0))))))"
  unfolding ts_parse_row_81_def by simp

text \<open>Lines 63275 to 63399.\<close>

definition ts_parse_row_82 :: parse_row where
  "ts_parse_row_82 =
    [(sym_ERR_unexpected_this_in_path, 2018), (sym_ERR_unexpected_super_in_path, 2018),
     (sym_constant, 2089), (sym_numeric_literal, 2090), (sym_int_literal, 2092),
     (sym_int_kind, 9320), (sym_signed_int, 2111), (sym_real_literal, 2092),
     (sym_signed_real_value, 2105), (sym_bool_literal, 2090), (sym_bool_literal_with_string, 2114),
     (sym_bool_literal_with_numeric, 2114), (sym_char_literal, 2090), (sym_char_str, 2120),
     (sym_time_literal, 2090), (sym_duration, 2123), (sym_time, 2087), (sym_ltime, 2087),
     (sym_time_of_day, 2123), (sym_tod, 2091), (sym_ltod, 2091), (sym_date, 2123),
     (sym_short_date, 2066), (sym_long_date, 2066), (sym_date_and_time, 2123),
     (sym_short_date_and_time, 2067), (sym_long_date_and_time, 2067), (sym_int_type_name, 9449),
     (sym_sign_int_type_name, 2352), (sym_unsign_int_type_name, 2352), (sym_real_type_name, 9455),
     (sym_string_type_name, 9457), (sym_string_name, 2353), (sym_char_name, 2353),
     (sym_multibits_type_name, 9449), (sym_enum_value, 2089), (sym_direct_variable, 2060),
     (sym_ref_value, 2089), (sym_ref_addr, 2096), (sym_deref_expression, 2016),
     (sym_variable, 2054), (sym_var_access, 2016), (sym__expression, 3343),
     (sym_fold_expression, 2088), (sym_pack_element, 2088), (sym__primary_expression, 2088),
     (sym_parenthesized_expression, 2089), (sym_boolean_operator, 2088), (sym_or_operator, 2093),
     (sym_xor_operator, 2093), (sym_and_operator, 2093), (sym_comparison_operator, 2088),
     (sym_eq_operator, 2102), (sym_ord_operator, 2102), (sym_add_operator, 2088),
     (sym_mult_operator, 2088), (sym_power_operator, 2088), (sym_unary_operator, 2088),
     (sym_unary, 61), (sym_variable_access, 2089), (sym_func_call, 2089),
     (sym_begin_path_expression, 2049), (sym_invocation, 2044), (sym_any_invocation, 2043),
     (sym_this_invocation, 2019), (sym_super_invocation, 2019), (sym_super_body_invocation, 2043),
     (sym_path_expression, 2002), (sym_field_expression, 2016), (sym_index_expression, 2016),
     (sym_identifier, 35), (aux_sym_ERR_unexpected_this_in_path_token1, 37),
     (aux_sym_ERR_unexpected_super_in_path_token1, 39), (sym_line_comment, 3),
     (anon_sym_LPAREN, 43), (sym_unsigned_int, 47), (sym__explicit_signed_int, 47),
     (sym_binary_int, 49), (sym_octal_int, 49), (sym_hex_int, 51), (sym__explicit_signed_real, 53),
     (sym_real_value, 53), (aux_sym_bool_literal_with_string_token1, 55),
     (aux_sym_bool_literal_with_string_token2, 57), (aux_sym_bool_literal_with_string_token3, 57),
     (sym_s_byte_char_str, 59), (sym_d_byte_char_str, 59), (aux_sym_time_token1, 61),
     (anon_sym_PLUS, 63), (anon_sym_DASH, 63), (aux_sym_ltime_token1, 65), (aux_sym_tod_token1, 67),
     (aux_sym_ltod_token1, 69), (aux_sym_short_date_token1, 71), (aux_sym_long_date_token1, 73),
     (aux_sym_short_date_and_time_token1, 75), (aux_sym_long_date_and_time_token1, 77),
     (aux_sym_sign_int_type_name_token1, 79), (aux_sym_sign_int_type_name_token2, 79),
     (aux_sym_sign_int_type_name_token3, 79), (aux_sym_sign_int_type_name_token4, 79),
     (aux_sym_unsign_int_type_name_token1, 81), (aux_sym_unsign_int_type_name_token2, 81),
     (aux_sym_unsign_int_type_name_token3, 81), (aux_sym_unsign_int_type_name_token4, 81),
     (aux_sym_real_type_name_token1, 83), (aux_sym_real_type_name_token2, 83),
     (aux_sym_string_name_token1, 85), (aux_sym_char_name_token1, 87),
     (aux_sym_multibits_type_name_token1, 89), (aux_sym_multibits_type_name_token2, 89),
     (aux_sym_multibits_type_name_token3, 89), (aux_sym_multibits_type_name_token4, 89),
     (anon_sym_PERCENT, 91), (aux_sym_ref_value_token1, 93), (aux_sym_ref_addr_token1, 95),
     (anon_sym_DOT_DOT_DOT, 97), (aux_sym_unary_token1, 63), (sym_c_style_comment, 3),
     (sym_pascal_style_comment, 3), (sym_pragma, 3), (sym__minus_before_base, 99),
     (sym__plus_before_base, 99)]"

lemma ts_parse_row_82_scan: "row_scan tokens_4_1 0 ts_parse_row_82 = Some (Suc (Suc (Suc (Suc (Suc (Suc 0))))))"
  unfolding ts_parse_row_82_def by simp

text \<open>Lines 63400 to 63524.\<close>

definition ts_parse_row_83 :: parse_row where
  "ts_parse_row_83 =
    [(sym_ERR_unexpected_this_in_path, 2018), (sym_ERR_unexpected_super_in_path, 2018),
     (sym_constant, 2089), (sym_numeric_literal, 2090), (sym_int_literal, 2092),
     (sym_int_kind, 9320), (sym_signed_int, 2111), (sym_real_literal, 2092),
     (sym_signed_real_value, 2105), (sym_bool_literal, 2090), (sym_bool_literal_with_string, 2114),
     (sym_bool_literal_with_numeric, 2114), (sym_char_literal, 2090), (sym_char_str, 2120),
     (sym_time_literal, 2090), (sym_duration, 2123), (sym_time, 2087), (sym_ltime, 2087),
     (sym_time_of_day, 2123), (sym_tod, 2091), (sym_ltod, 2091), (sym_date, 2123),
     (sym_short_date, 2066), (sym_long_date, 2066), (sym_date_and_time, 2123),
     (sym_short_date_and_time, 2067), (sym_long_date_and_time, 2067), (sym_int_type_name, 9449),
     (sym_sign_int_type_name, 2352), (sym_unsign_int_type_name, 2352), (sym_real_type_name, 9455),
     (sym_string_type_name, 9457), (sym_string_name, 2353), (sym_char_name, 2353),
     (sym_multibits_type_name, 9449), (sym_enum_value, 2089), (sym_direct_variable, 2060),
     (sym_ref_value, 2089), (sym_ref_addr, 2096), (sym_deref_expression, 2016),
     (sym_variable, 2054), (sym_var_access, 2016), (sym__expression, 2040),
     (sym_fold_expression, 2088), (sym_pack_element, 2088), (sym__primary_expression, 2088),
     (sym_parenthesized_expression, 2089), (sym_boolean_operator, 2088), (sym_or_operator, 2093),
     (sym_xor_operator, 2093), (sym_and_operator, 2093), (sym_comparison_operator, 2088),
     (sym_eq_operator, 2102), (sym_ord_operator, 2102), (sym_add_operator, 2088),
     (sym_mult_operator, 2088), (sym_power_operator, 2088), (sym_unary_operator, 2088),
     (sym_unary, 61), (sym_variable_access, 2089), (sym_func_call, 2089),
     (sym_begin_path_expression, 2049), (sym_invocation, 2044), (sym_any_invocation, 2043),
     (sym_this_invocation, 2019), (sym_super_invocation, 2019), (sym_super_body_invocation, 2043),
     (sym_path_expression, 2002), (sym_field_expression, 2016), (sym_index_expression, 2016),
     (sym_identifier, 35), (aux_sym_ERR_unexpected_this_in_path_token1, 37),
     (aux_sym_ERR_unexpected_super_in_path_token1, 39), (sym_line_comment, 3),
     (anon_sym_LPAREN, 43), (sym_unsigned_int, 47), (sym__explicit_signed_int, 47),
     (sym_binary_int, 49), (sym_octal_int, 49), (sym_hex_int, 51), (sym__explicit_signed_real, 53),
     (sym_real_value, 53), (aux_sym_bool_literal_with_string_token1, 55),
     (aux_sym_bool_literal_with_string_token2, 57), (aux_sym_bool_literal_with_string_token3, 57),
     (sym_s_byte_char_str, 59), (sym_d_byte_char_str, 59), (aux_sym_time_token1, 61),
     (anon_sym_PLUS, 63), (anon_sym_DASH, 63), (aux_sym_ltime_token1, 65), (aux_sym_tod_token1, 67),
     (aux_sym_ltod_token1, 69), (aux_sym_short_date_token1, 71), (aux_sym_long_date_token1, 73),
     (aux_sym_short_date_and_time_token1, 75), (aux_sym_long_date_and_time_token1, 77),
     (aux_sym_sign_int_type_name_token1, 79), (aux_sym_sign_int_type_name_token2, 79),
     (aux_sym_sign_int_type_name_token3, 79), (aux_sym_sign_int_type_name_token4, 79),
     (aux_sym_unsign_int_type_name_token1, 81), (aux_sym_unsign_int_type_name_token2, 81),
     (aux_sym_unsign_int_type_name_token3, 81), (aux_sym_unsign_int_type_name_token4, 81),
     (aux_sym_real_type_name_token1, 83), (aux_sym_real_type_name_token2, 83),
     (aux_sym_string_name_token1, 85), (aux_sym_char_name_token1, 87),
     (aux_sym_multibits_type_name_token1, 89), (aux_sym_multibits_type_name_token2, 89),
     (aux_sym_multibits_type_name_token3, 89), (aux_sym_multibits_type_name_token4, 89),
     (anon_sym_PERCENT, 91), (aux_sym_ref_value_token1, 93), (aux_sym_ref_addr_token1, 95),
     (anon_sym_DOT_DOT_DOT, 97), (aux_sym_unary_token1, 63), (sym_c_style_comment, 3),
     (sym_pascal_style_comment, 3), (sym_pragma, 3), (sym__minus_before_base, 99),
     (sym__plus_before_base, 99)]"

lemma ts_parse_row_83_scan: "row_scan tokens_4_1 0 ts_parse_row_83 = Some (Suc (Suc (Suc (Suc (Suc (Suc 0))))))"
  unfolding ts_parse_row_83_def by simp

text \<open>Lines 63525 to 63649.\<close>

definition ts_parse_row_84 :: parse_row where
  "ts_parse_row_84 =
    [(sym_ERR_unexpected_this_in_path, 2018), (sym_ERR_unexpected_super_in_path, 2018),
     (sym_constant, 2089), (sym_numeric_literal, 2090), (sym_int_literal, 2092),
     (sym_int_kind, 9320), (sym_signed_int, 2111), (sym_real_literal, 2092),
     (sym_signed_real_value, 2105), (sym_bool_literal, 2090), (sym_bool_literal_with_string, 2114),
     (sym_bool_literal_with_numeric, 2114), (sym_char_literal, 2090), (sym_char_str, 2120),
     (sym_time_literal, 2090), (sym_duration, 2123), (sym_time, 2087), (sym_ltime, 2087),
     (sym_time_of_day, 2123), (sym_tod, 2091), (sym_ltod, 2091), (sym_date, 2123),
     (sym_short_date, 2066), (sym_long_date, 2066), (sym_date_and_time, 2123),
     (sym_short_date_and_time, 2067), (sym_long_date_and_time, 2067), (sym_int_type_name, 9449),
     (sym_sign_int_type_name, 2352), (sym_unsign_int_type_name, 2352), (sym_real_type_name, 9455),
     (sym_string_type_name, 9457), (sym_string_name, 2353), (sym_char_name, 2353),
     (sym_multibits_type_name, 9449), (sym_enum_value, 2089), (sym_direct_variable, 2060),
     (sym_ref_value, 2089), (sym_ref_addr, 2096), (sym_deref_expression, 2016),
     (sym_variable, 2054), (sym_var_access, 2016), (sym__expression, 3327),
     (sym_fold_expression, 2088), (sym_pack_element, 2088), (sym__primary_expression, 2088),
     (sym_parenthesized_expression, 2089), (sym_boolean_operator, 2088), (sym_or_operator, 2093),
     (sym_xor_operator, 2093), (sym_and_operator, 2093), (sym_comparison_operator, 2088),
     (sym_eq_operator, 2102), (sym_ord_operator, 2102), (sym_add_operator, 2088),
     (sym_mult_operator, 2088), (sym_power_operator, 2088), (sym_unary_operator, 2088),
     (sym_unary, 61), (sym_variable_access, 2089), (sym_func_call, 2089),
     (sym_begin_path_expression, 2049), (sym_invocation, 2044), (sym_any_invocation, 2043),
     (sym_this_invocation, 2019), (sym_super_invocation, 2019), (sym_super_body_invocation, 2043),
     (sym_path_expression, 2002), (sym_field_expression, 2016), (sym_index_expression, 2016),
     (sym_identifier, 35), (aux_sym_ERR_unexpected_this_in_path_token1, 37),
     (aux_sym_ERR_unexpected_super_in_path_token1, 39), (sym_line_comment, 3),
     (anon_sym_LPAREN, 43), (sym_unsigned_int, 47), (sym__explicit_signed_int, 47),
     (sym_binary_int, 49), (sym_octal_int, 49), (sym_hex_int, 51), (sym__explicit_signed_real, 53),
     (sym_real_value, 53), (aux_sym_bool_literal_with_string_token1, 55),
     (aux_sym_bool_literal_with_string_token2, 57), (aux_sym_bool_literal_with_string_token3, 57),
     (sym_s_byte_char_str, 59), (sym_d_byte_char_str, 59), (aux_sym_time_token1, 61),
     (anon_sym_PLUS, 63), (anon_sym_DASH, 63), (aux_sym_ltime_token1, 65), (aux_sym_tod_token1, 67),
     (aux_sym_ltod_token1, 69), (aux_sym_short_date_token1, 71), (aux_sym_long_date_token1, 73),
     (aux_sym_short_date_and_time_token1, 75), (aux_sym_long_date_and_time_token1, 77),
     (aux_sym_sign_int_type_name_token1, 79), (aux_sym_sign_int_type_name_token2, 79),
     (aux_sym_sign_int_type_name_token3, 79), (aux_sym_sign_int_type_name_token4, 79),
     (aux_sym_unsign_int_type_name_token1, 81), (aux_sym_unsign_int_type_name_token2, 81),
     (aux_sym_unsign_int_type_name_token3, 81), (aux_sym_unsign_int_type_name_token4, 81),
     (aux_sym_real_type_name_token1, 83), (aux_sym_real_type_name_token2, 83),
     (aux_sym_string_name_token1, 85), (aux_sym_char_name_token1, 87),
     (aux_sym_multibits_type_name_token1, 89), (aux_sym_multibits_type_name_token2, 89),
     (aux_sym_multibits_type_name_token3, 89), (aux_sym_multibits_type_name_token4, 89),
     (anon_sym_PERCENT, 91), (aux_sym_ref_value_token1, 93), (aux_sym_ref_addr_token1, 95),
     (anon_sym_DOT_DOT_DOT, 97), (aux_sym_unary_token1, 63), (sym_c_style_comment, 3),
     (sym_pascal_style_comment, 3), (sym_pragma, 3), (sym__minus_before_base, 99),
     (sym__plus_before_base, 99)]"

lemma ts_parse_row_84_scan: "row_scan tokens_4_1 0 ts_parse_row_84 = Some (Suc (Suc (Suc (Suc (Suc (Suc 0))))))"
  unfolding ts_parse_row_84_def by simp

text \<open>Lines 63650 to 63774.\<close>

definition ts_parse_row_85 :: parse_row where
  "ts_parse_row_85 =
    [(sym_ERR_unexpected_this_in_path, 2018), (sym_ERR_unexpected_super_in_path, 2018),
     (sym_constant, 2089), (sym_numeric_literal, 2090), (sym_int_literal, 2092),
     (sym_int_kind, 9320), (sym_signed_int, 2111), (sym_real_literal, 2092),
     (sym_signed_real_value, 2105), (sym_bool_literal, 2090), (sym_bool_literal_with_string, 2114),
     (sym_bool_literal_with_numeric, 2114), (sym_char_literal, 2090), (sym_char_str, 2120),
     (sym_time_literal, 2090), (sym_duration, 2123), (sym_time, 2087), (sym_ltime, 2087),
     (sym_time_of_day, 2123), (sym_tod, 2091), (sym_ltod, 2091), (sym_date, 2123),
     (sym_short_date, 2066), (sym_long_date, 2066), (sym_date_and_time, 2123),
     (sym_short_date_and_time, 2067), (sym_long_date_and_time, 2067), (sym_int_type_name, 9449),
     (sym_sign_int_type_name, 2352), (sym_unsign_int_type_name, 2352), (sym_real_type_name, 9455),
     (sym_string_type_name, 9457), (sym_string_name, 2353), (sym_char_name, 2353),
     (sym_multibits_type_name, 9449), (sym_enum_value, 2089), (sym_direct_variable, 2060),
     (sym_ref_value, 2089), (sym_ref_addr, 2096), (sym_deref_expression, 2016),
     (sym_variable, 2054), (sym_var_access, 2016), (sym__expression, 2030),
     (sym_fold_expression, 2088), (sym_pack_element, 2088), (sym__primary_expression, 2088),
     (sym_parenthesized_expression, 2089), (sym_boolean_operator, 2088), (sym_or_operator, 2093),
     (sym_xor_operator, 2093), (sym_and_operator, 2093), (sym_comparison_operator, 2088),
     (sym_eq_operator, 2102), (sym_ord_operator, 2102), (sym_add_operator, 2088),
     (sym_mult_operator, 2088), (sym_power_operator, 2088), (sym_unary_operator, 2088),
     (sym_unary, 61), (sym_variable_access, 2089), (sym_func_call, 2089),
     (sym_begin_path_expression, 2049), (sym_invocation, 2044), (sym_any_invocation, 2043),
     (sym_this_invocation, 2019), (sym_super_invocation, 2019), (sym_super_body_invocation, 2043),
     (sym_path_expression, 2002), (sym_field_expression, 2016), (sym_index_expression, 2016),
     (sym_identifier, 35), (aux_sym_ERR_unexpected_this_in_path_token1, 37),
     (aux_sym_ERR_unexpected_super_in_path_token1, 39), (sym_line_comment, 3),
     (anon_sym_LPAREN, 43), (sym_unsigned_int, 47), (sym__explicit_signed_int, 47),
     (sym_binary_int, 49), (sym_octal_int, 49), (sym_hex_int, 51), (sym__explicit_signed_real, 53),
     (sym_real_value, 53), (aux_sym_bool_literal_with_string_token1, 55),
     (aux_sym_bool_literal_with_string_token2, 57), (aux_sym_bool_literal_with_string_token3, 57),
     (sym_s_byte_char_str, 59), (sym_d_byte_char_str, 59), (aux_sym_time_token1, 61),
     (anon_sym_PLUS, 63), (anon_sym_DASH, 63), (aux_sym_ltime_token1, 65), (aux_sym_tod_token1, 67),
     (aux_sym_ltod_token1, 69), (aux_sym_short_date_token1, 71), (aux_sym_long_date_token1, 73),
     (aux_sym_short_date_and_time_token1, 75), (aux_sym_long_date_and_time_token1, 77),
     (aux_sym_sign_int_type_name_token1, 79), (aux_sym_sign_int_type_name_token2, 79),
     (aux_sym_sign_int_type_name_token3, 79), (aux_sym_sign_int_type_name_token4, 79),
     (aux_sym_unsign_int_type_name_token1, 81), (aux_sym_unsign_int_type_name_token2, 81),
     (aux_sym_unsign_int_type_name_token3, 81), (aux_sym_unsign_int_type_name_token4, 81),
     (aux_sym_real_type_name_token1, 83), (aux_sym_real_type_name_token2, 83),
     (aux_sym_string_name_token1, 85), (aux_sym_char_name_token1, 87),
     (aux_sym_multibits_type_name_token1, 89), (aux_sym_multibits_type_name_token2, 89),
     (aux_sym_multibits_type_name_token3, 89), (aux_sym_multibits_type_name_token4, 89),
     (anon_sym_PERCENT, 91), (aux_sym_ref_value_token1, 93), (aux_sym_ref_addr_token1, 95),
     (anon_sym_DOT_DOT_DOT, 97), (aux_sym_unary_token1, 63), (sym_c_style_comment, 3),
     (sym_pascal_style_comment, 3), (sym_pragma, 3), (sym__minus_before_base, 99),
     (sym__plus_before_base, 99)]"

lemma ts_parse_row_85_scan: "row_scan tokens_4_1 0 ts_parse_row_85 = Some (Suc (Suc (Suc (Suc (Suc (Suc 0))))))"
  unfolding ts_parse_row_85_def by simp

text \<open>Lines 63775 to 63899.\<close>

definition ts_parse_row_86 :: parse_row where
  "ts_parse_row_86 =
    [(sym_ERR_unexpected_this_in_path, 2018), (sym_ERR_unexpected_super_in_path, 2018),
     (sym_constant, 2089), (sym_numeric_literal, 2090), (sym_int_literal, 2092),
     (sym_int_kind, 9320), (sym_signed_int, 2111), (sym_real_literal, 2092),
     (sym_signed_real_value, 2105), (sym_bool_literal, 2090), (sym_bool_literal_with_string, 2114),
     (sym_bool_literal_with_numeric, 2114), (sym_char_literal, 2090), (sym_char_str, 2120),
     (sym_time_literal, 2090), (sym_duration, 2123), (sym_time, 2087), (sym_ltime, 2087),
     (sym_time_of_day, 2123), (sym_tod, 2091), (sym_ltod, 2091), (sym_date, 2123),
     (sym_short_date, 2066), (sym_long_date, 2066), (sym_date_and_time, 2123),
     (sym_short_date_and_time, 2067), (sym_long_date_and_time, 2067), (sym_int_type_name, 9449),
     (sym_sign_int_type_name, 2352), (sym_unsign_int_type_name, 2352), (sym_real_type_name, 9455),
     (sym_string_type_name, 9457), (sym_string_name, 2353), (sym_char_name, 2353),
     (sym_multibits_type_name, 9449), (sym_enum_value, 2089), (sym_direct_variable, 2060),
     (sym_ref_value, 2089), (sym_ref_addr, 2096), (sym_deref_expression, 2016),
     (sym_variable, 2054), (sym_var_access, 2016), (sym__expression, 2032),
     (sym_fold_expression, 2088), (sym_pack_element, 2088), (sym__primary_expression, 2088),
     (sym_parenthesized_expression, 2089), (sym_boolean_operator, 2088), (sym_or_operator, 2093),
     (sym_xor_operator, 2093), (sym_and_operator, 2093), (sym_comparison_operator, 2088),
     (sym_eq_operator, 2102), (sym_ord_operator, 2102), (sym_add_operator, 2088),
     (sym_mult_operator, 2088), (sym_power_operator, 2088), (sym_unary_operator, 2088),
     (sym_unary, 61), (sym_variable_access, 2089), (sym_func_call, 2089),
     (sym_begin_path_expression, 2049), (sym_invocation, 2044), (sym_any_invocation, 2043),
     (sym_this_invocation, 2019), (sym_super_invocation, 2019), (sym_super_body_invocation, 2043),
     (sym_path_expression, 2002), (sym_field_expression, 2016), (sym_index_expression, 2016),
     (sym_identifier, 35), (aux_sym_ERR_unexpected_this_in_path_token1, 37),
     (aux_sym_ERR_unexpected_super_in_path_token1, 39), (sym_line_comment, 3),
     (anon_sym_LPAREN, 43), (sym_unsigned_int, 47), (sym__explicit_signed_int, 47),
     (sym_binary_int, 49), (sym_octal_int, 49), (sym_hex_int, 51), (sym__explicit_signed_real, 53),
     (sym_real_value, 53), (aux_sym_bool_literal_with_string_token1, 55),
     (aux_sym_bool_literal_with_string_token2, 57), (aux_sym_bool_literal_with_string_token3, 57),
     (sym_s_byte_char_str, 59), (sym_d_byte_char_str, 59), (aux_sym_time_token1, 61),
     (anon_sym_PLUS, 63), (anon_sym_DASH, 63), (aux_sym_ltime_token1, 65), (aux_sym_tod_token1, 67),
     (aux_sym_ltod_token1, 69), (aux_sym_short_date_token1, 71), (aux_sym_long_date_token1, 73),
     (aux_sym_short_date_and_time_token1, 75), (aux_sym_long_date_and_time_token1, 77),
     (aux_sym_sign_int_type_name_token1, 79), (aux_sym_sign_int_type_name_token2, 79),
     (aux_sym_sign_int_type_name_token3, 79), (aux_sym_sign_int_type_name_token4, 79),
     (aux_sym_unsign_int_type_name_token1, 81), (aux_sym_unsign_int_type_name_token2, 81),
     (aux_sym_unsign_int_type_name_token3, 81), (aux_sym_unsign_int_type_name_token4, 81),
     (aux_sym_real_type_name_token1, 83), (aux_sym_real_type_name_token2, 83),
     (aux_sym_string_name_token1, 85), (aux_sym_char_name_token1, 87),
     (aux_sym_multibits_type_name_token1, 89), (aux_sym_multibits_type_name_token2, 89),
     (aux_sym_multibits_type_name_token3, 89), (aux_sym_multibits_type_name_token4, 89),
     (anon_sym_PERCENT, 91), (aux_sym_ref_value_token1, 93), (aux_sym_ref_addr_token1, 95),
     (anon_sym_DOT_DOT_DOT, 97), (aux_sym_unary_token1, 63), (sym_c_style_comment, 3),
     (sym_pascal_style_comment, 3), (sym_pragma, 3), (sym__minus_before_base, 99),
     (sym__plus_before_base, 99)]"

lemma ts_parse_row_86_scan: "row_scan tokens_4_1 0 ts_parse_row_86 = Some (Suc (Suc (Suc (Suc (Suc (Suc 0))))))"
  unfolding ts_parse_row_86_def by simp

text \<open>Lines 63900 to 64024.\<close>

definition ts_parse_row_87 :: parse_row where
  "ts_parse_row_87 =
    [(sym_ERR_unexpected_this_in_path, 2018), (sym_ERR_unexpected_super_in_path, 2018),
     (sym_constant, 2089), (sym_numeric_literal, 2090), (sym_int_literal, 2092),
     (sym_int_kind, 9320), (sym_signed_int, 2111), (sym_real_literal, 2092),
     (sym_signed_real_value, 2105), (sym_bool_literal, 2090), (sym_bool_literal_with_string, 2114),
     (sym_bool_literal_with_numeric, 2114), (sym_char_literal, 2090), (sym_char_str, 2120),
     (sym_time_literal, 2090), (sym_duration, 2123), (sym_time, 2087), (sym_ltime, 2087),
     (sym_time_of_day, 2123), (sym_tod, 2091), (sym_ltod, 2091), (sym_date, 2123),
     (sym_short_date, 2066), (sym_long_date, 2066), (sym_date_and_time, 2123),
     (sym_short_date_and_time, 2067), (sym_long_date_and_time, 2067), (sym_int_type_name, 9449),
     (sym_sign_int_type_name, 2352), (sym_unsign_int_type_name, 2352), (sym_real_type_name, 9455),
     (sym_string_type_name, 9457), (sym_string_name, 2353), (sym_char_name, 2353),
     (sym_multibits_type_name, 9449), (sym_enum_value, 2089), (sym_direct_variable, 2060),
     (sym_ref_value, 2089), (sym_ref_addr, 2096), (sym_deref_expression, 2016),
     (sym_variable, 2054), (sym_var_access, 2016), (sym__expression, 3341),
     (sym_fold_expression, 2088), (sym_pack_element, 2088), (sym__primary_expression, 2088),
     (sym_parenthesized_expression, 2089), (sym_boolean_operator, 2088), (sym_or_operator, 2093),
     (sym_xor_operator, 2093), (sym_and_operator, 2093), (sym_comparison_operator, 2088),
     (sym_eq_operator, 2102), (sym_ord_operator, 2102), (sym_add_operator, 2088),
     (sym_mult_operator, 2088), (sym_power_operator, 2088), (sym_unary_operator, 2088),
     (sym_unary, 61), (sym_variable_access, 2089), (sym_func_call, 2089),
     (sym_begin_path_expression, 2049), (sym_invocation, 2044), (sym_any_invocation, 2043),
     (sym_this_invocation, 2019), (sym_super_invocation, 2019), (sym_super_body_invocation, 2043),
     (sym_path_expression, 2002), (sym_field_expression, 2016), (sym_index_expression, 2016),
     (sym_identifier, 35), (aux_sym_ERR_unexpected_this_in_path_token1, 37),
     (aux_sym_ERR_unexpected_super_in_path_token1, 39), (sym_line_comment, 3),
     (anon_sym_LPAREN, 43), (sym_unsigned_int, 47), (sym__explicit_signed_int, 47),
     (sym_binary_int, 49), (sym_octal_int, 49), (sym_hex_int, 51), (sym__explicit_signed_real, 53),
     (sym_real_value, 53), (aux_sym_bool_literal_with_string_token1, 55),
     (aux_sym_bool_literal_with_string_token2, 57), (aux_sym_bool_literal_with_string_token3, 57),
     (sym_s_byte_char_str, 59), (sym_d_byte_char_str, 59), (aux_sym_time_token1, 61),
     (anon_sym_PLUS, 63), (anon_sym_DASH, 63), (aux_sym_ltime_token1, 65), (aux_sym_tod_token1, 67),
     (aux_sym_ltod_token1, 69), (aux_sym_short_date_token1, 71), (aux_sym_long_date_token1, 73),
     (aux_sym_short_date_and_time_token1, 75), (aux_sym_long_date_and_time_token1, 77),
     (aux_sym_sign_int_type_name_token1, 79), (aux_sym_sign_int_type_name_token2, 79),
     (aux_sym_sign_int_type_name_token3, 79), (aux_sym_sign_int_type_name_token4, 79),
     (aux_sym_unsign_int_type_name_token1, 81), (aux_sym_unsign_int_type_name_token2, 81),
     (aux_sym_unsign_int_type_name_token3, 81), (aux_sym_unsign_int_type_name_token4, 81),
     (aux_sym_real_type_name_token1, 83), (aux_sym_real_type_name_token2, 83),
     (aux_sym_string_name_token1, 85), (aux_sym_char_name_token1, 87),
     (aux_sym_multibits_type_name_token1, 89), (aux_sym_multibits_type_name_token2, 89),
     (aux_sym_multibits_type_name_token3, 89), (aux_sym_multibits_type_name_token4, 89),
     (anon_sym_PERCENT, 91), (aux_sym_ref_value_token1, 93), (aux_sym_ref_addr_token1, 95),
     (anon_sym_DOT_DOT_DOT, 97), (aux_sym_unary_token1, 63), (sym_c_style_comment, 3),
     (sym_pascal_style_comment, 3), (sym_pragma, 3), (sym__minus_before_base, 99),
     (sym__plus_before_base, 99)]"

lemma ts_parse_row_87_scan: "row_scan tokens_4_1 0 ts_parse_row_87 = Some (Suc (Suc (Suc (Suc (Suc (Suc 0))))))"
  unfolding ts_parse_row_87_def by simp

text \<open>Lines 64025 to 64149.\<close>

definition ts_parse_row_88 :: parse_row where
  "ts_parse_row_88 =
    [(sym_ERR_unexpected_this_in_path, 2018), (sym_ERR_unexpected_super_in_path, 2018),
     (sym_constant, 2089), (sym_numeric_literal, 2090), (sym_int_literal, 2092),
     (sym_int_kind, 9320), (sym_signed_int, 2111), (sym_real_literal, 2092),
     (sym_signed_real_value, 2105), (sym_bool_literal, 2090), (sym_bool_literal_with_string, 2114),
     (sym_bool_literal_with_numeric, 2114), (sym_char_literal, 2090), (sym_char_str, 2120),
     (sym_time_literal, 2090), (sym_duration, 2123), (sym_time, 2087), (sym_ltime, 2087),
     (sym_time_of_day, 2123), (sym_tod, 2091), (sym_ltod, 2091), (sym_date, 2123),
     (sym_short_date, 2066), (sym_long_date, 2066), (sym_date_and_time, 2123),
     (sym_short_date_and_time, 2067), (sym_long_date_and_time, 2067), (sym_int_type_name, 9449),
     (sym_sign_int_type_name, 2352), (sym_unsign_int_type_name, 2352), (sym_real_type_name, 9455),
     (sym_string_type_name, 9457), (sym_string_name, 2353), (sym_char_name, 2353),
     (sym_multibits_type_name, 9449), (sym_enum_value, 2089), (sym_direct_variable, 2060),
     (sym_ref_value, 2089), (sym_ref_addr, 2096), (sym_deref_expression, 2016),
     (sym_variable, 2054), (sym_var_access, 2016), (sym__expression, 3335),
     (sym_fold_expression, 2088), (sym_pack_element, 2088), (sym__primary_expression, 2088),
     (sym_parenthesized_expression, 2089), (sym_boolean_operator, 2088), (sym_or_operator, 2093),
     (sym_xor_operator, 2093), (sym_and_operator, 2093), (sym_comparison_operator, 2088),
     (sym_eq_operator, 2102), (sym_ord_operator, 2102), (sym_add_operator, 2088),
     (sym_mult_operator, 2088), (sym_power_operator, 2088), (sym_unary_operator, 2088),
     (sym_unary, 61), (sym_variable_access, 2089), (sym_func_call, 2089),
     (sym_begin_path_expression, 2049), (sym_invocation, 2044), (sym_any_invocation, 2043),
     (sym_this_invocation, 2019), (sym_super_invocation, 2019), (sym_super_body_invocation, 2043),
     (sym_path_expression, 2002), (sym_field_expression, 2016), (sym_index_expression, 2016),
     (sym_identifier, 35), (aux_sym_ERR_unexpected_this_in_path_token1, 37),
     (aux_sym_ERR_unexpected_super_in_path_token1, 39), (sym_line_comment, 3),
     (anon_sym_LPAREN, 43), (sym_unsigned_int, 47), (sym__explicit_signed_int, 47),
     (sym_binary_int, 49), (sym_octal_int, 49), (sym_hex_int, 51), (sym__explicit_signed_real, 53),
     (sym_real_value, 53), (aux_sym_bool_literal_with_string_token1, 55),
     (aux_sym_bool_literal_with_string_token2, 57), (aux_sym_bool_literal_with_string_token3, 57),
     (sym_s_byte_char_str, 59), (sym_d_byte_char_str, 59), (aux_sym_time_token1, 61),
     (anon_sym_PLUS, 63), (anon_sym_DASH, 63), (aux_sym_ltime_token1, 65), (aux_sym_tod_token1, 67),
     (aux_sym_ltod_token1, 69), (aux_sym_short_date_token1, 71), (aux_sym_long_date_token1, 73),
     (aux_sym_short_date_and_time_token1, 75), (aux_sym_long_date_and_time_token1, 77),
     (aux_sym_sign_int_type_name_token1, 79), (aux_sym_sign_int_type_name_token2, 79),
     (aux_sym_sign_int_type_name_token3, 79), (aux_sym_sign_int_type_name_token4, 79),
     (aux_sym_unsign_int_type_name_token1, 81), (aux_sym_unsign_int_type_name_token2, 81),
     (aux_sym_unsign_int_type_name_token3, 81), (aux_sym_unsign_int_type_name_token4, 81),
     (aux_sym_real_type_name_token1, 83), (aux_sym_real_type_name_token2, 83),
     (aux_sym_string_name_token1, 85), (aux_sym_char_name_token1, 87),
     (aux_sym_multibits_type_name_token1, 89), (aux_sym_multibits_type_name_token2, 89),
     (aux_sym_multibits_type_name_token3, 89), (aux_sym_multibits_type_name_token4, 89),
     (anon_sym_PERCENT, 91), (aux_sym_ref_value_token1, 93), (aux_sym_ref_addr_token1, 95),
     (anon_sym_DOT_DOT_DOT, 97), (aux_sym_unary_token1, 63), (sym_c_style_comment, 3),
     (sym_pascal_style_comment, 3), (sym_pragma, 3), (sym__minus_before_base, 99),
     (sym__plus_before_base, 99)]"

lemma ts_parse_row_88_scan: "row_scan tokens_4_1 0 ts_parse_row_88 = Some (Suc (Suc (Suc (Suc (Suc (Suc 0))))))"
  unfolding ts_parse_row_88_def by simp

text \<open>Lines 64150 to 64274.\<close>

definition ts_parse_row_89 :: parse_row where
  "ts_parse_row_89 =
    [(sym_ERR_unexpected_this_in_path, 2018), (sym_ERR_unexpected_super_in_path, 2018),
     (sym_constant, 2089), (sym_numeric_literal, 2090), (sym_int_literal, 2092),
     (sym_int_kind, 9320), (sym_signed_int, 2111), (sym_real_literal, 2092),
     (sym_signed_real_value, 2105), (sym_bool_literal, 2090), (sym_bool_literal_with_string, 2114),
     (sym_bool_literal_with_numeric, 2114), (sym_char_literal, 2090), (sym_char_str, 2120),
     (sym_time_literal, 2090), (sym_duration, 2123), (sym_time, 2087), (sym_ltime, 2087),
     (sym_time_of_day, 2123), (sym_tod, 2091), (sym_ltod, 2091), (sym_date, 2123),
     (sym_short_date, 2066), (sym_long_date, 2066), (sym_date_and_time, 2123),
     (sym_short_date_and_time, 2067), (sym_long_date_and_time, 2067), (sym_int_type_name, 9449),
     (sym_sign_int_type_name, 2352), (sym_unsign_int_type_name, 2352), (sym_real_type_name, 9455),
     (sym_string_type_name, 9457), (sym_string_name, 2353), (sym_char_name, 2353),
     (sym_multibits_type_name, 9449), (sym_enum_value, 2089), (sym_direct_variable, 2060),
     (sym_ref_value, 2089), (sym_ref_addr, 2096), (sym_deref_expression, 2016),
     (sym_variable, 2054), (sym_var_access, 2016), (sym__expression, 3328),
     (sym_fold_expression, 2088), (sym_pack_element, 2088), (sym__primary_expression, 2088),
     (sym_parenthesized_expression, 2089), (sym_boolean_operator, 2088), (sym_or_operator, 2093),
     (sym_xor_operator, 2093), (sym_and_operator, 2093), (sym_comparison_operator, 2088),
     (sym_eq_operator, 2102), (sym_ord_operator, 2102), (sym_add_operator, 2088),
     (sym_mult_operator, 2088), (sym_power_operator, 2088), (sym_unary_operator, 2088),
     (sym_unary, 61), (sym_variable_access, 2089), (sym_func_call, 2089),
     (sym_begin_path_expression, 2049), (sym_invocation, 2044), (sym_any_invocation, 2043),
     (sym_this_invocation, 2019), (sym_super_invocation, 2019), (sym_super_body_invocation, 2043),
     (sym_path_expression, 2002), (sym_field_expression, 2016), (sym_index_expression, 2016),
     (sym_identifier, 35), (aux_sym_ERR_unexpected_this_in_path_token1, 37),
     (aux_sym_ERR_unexpected_super_in_path_token1, 39), (sym_line_comment, 3),
     (anon_sym_LPAREN, 43), (sym_unsigned_int, 47), (sym__explicit_signed_int, 47),
     (sym_binary_int, 49), (sym_octal_int, 49), (sym_hex_int, 51), (sym__explicit_signed_real, 53),
     (sym_real_value, 53), (aux_sym_bool_literal_with_string_token1, 55),
     (aux_sym_bool_literal_with_string_token2, 57), (aux_sym_bool_literal_with_string_token3, 57),
     (sym_s_byte_char_str, 59), (sym_d_byte_char_str, 59), (aux_sym_time_token1, 61),
     (anon_sym_PLUS, 63), (anon_sym_DASH, 63), (aux_sym_ltime_token1, 65), (aux_sym_tod_token1, 67),
     (aux_sym_ltod_token1, 69), (aux_sym_short_date_token1, 71), (aux_sym_long_date_token1, 73),
     (aux_sym_short_date_and_time_token1, 75), (aux_sym_long_date_and_time_token1, 77),
     (aux_sym_sign_int_type_name_token1, 79), (aux_sym_sign_int_type_name_token2, 79),
     (aux_sym_sign_int_type_name_token3, 79), (aux_sym_sign_int_type_name_token4, 79),
     (aux_sym_unsign_int_type_name_token1, 81), (aux_sym_unsign_int_type_name_token2, 81),
     (aux_sym_unsign_int_type_name_token3, 81), (aux_sym_unsign_int_type_name_token4, 81),
     (aux_sym_real_type_name_token1, 83), (aux_sym_real_type_name_token2, 83),
     (aux_sym_string_name_token1, 85), (aux_sym_char_name_token1, 87),
     (aux_sym_multibits_type_name_token1, 89), (aux_sym_multibits_type_name_token2, 89),
     (aux_sym_multibits_type_name_token3, 89), (aux_sym_multibits_type_name_token4, 89),
     (anon_sym_PERCENT, 91), (aux_sym_ref_value_token1, 93), (aux_sym_ref_addr_token1, 95),
     (anon_sym_DOT_DOT_DOT, 97), (aux_sym_unary_token1, 63), (sym_c_style_comment, 3),
     (sym_pascal_style_comment, 3), (sym_pragma, 3), (sym__minus_before_base, 99),
     (sym__plus_before_base, 99)]"

lemma ts_parse_row_89_scan: "row_scan tokens_4_1 0 ts_parse_row_89 = Some (Suc (Suc (Suc (Suc (Suc (Suc 0))))))"
  unfolding ts_parse_row_89_def by simp

text \<open>Lines 64275 to 64397.\<close>

definition ts_parse_row_90 :: parse_row where
  "ts_parse_row_90 =
    [(sym_ERR_implements_before_extends, 120), (sym_ERR_implements_multiple_times, 195),
     (sym_ERR_extends_multiple_times, 97), (sym_ERR_assign_func_call, 7530),
     (sym_ERR_unexpected_this_in_path, 2372), (sym_ERR_unexpected_super_in_path, 2372),
     (sym_ERR_fb_variables_after_method, 1869), (sym_ERR_var_access_not_allowed, 3160),
     (sym_ERR_var_config_not_allowed, 3160), (sym_ERR_var_global_not_allowed, 3160),
     (sym_ERR_method_decl_in_body, 3150), (sym_extern_pragma, 7490), (sym_wasm_pragma, 3150),
     (sym_warn_pragma, 7490), (sym_allow_pragma, 3140), (sym_test_pragma, 7490),
     (sym_once_pragma, 7490), (sym_must_call_pragma, 7490), (sym_export_pragma, 7490),
     (sym_pou_pragma, 7194), (sym_direct_variable, 7675), (sym_deref_expression, 2373),
     (sym_variable, 7599), (sym_var_access, 2373), (sym_in_out_decls, 3160), (sym_var_decls, 3160),
     (sym_retain_var_decls, 3160), (sym_temp_var_decls, 3160), (sym_external_var_decls, 3160),
     (sym_global_var_decls, 2947), (sym_loc_partly_var_decl, 3160), (sym__fb_variables, 427),
     (sym_fb_input_decls, 3160), (sym_fb_output_decls, 3160), (sym_no_retain_var_decls, 3160),
     (sym_fb_body, 10148), (sym_method_decl, 471), (sym_prog_access_decls, 3043), (sym_SFC, 7970),
     (sym_SFC_network, 7612), (sym_initial_step, 7439), (sym_config_init, 3047),
     (sym_using_directive, 302), (sym_variable_access, 7530), (sym_func_call, 2961),
     (sym_stmt_list, 7970), (sym__stmt, 2024), (sym_assign, 3150), (sym_if_stmt, 3150),
     (sym_case_stmt, 3150), (sym_for_stmt, 3150), (sym_while_stmt, 3150), (sym_repeat_stmt, 3150),
     (sym_raise_stmt, 3150), (sym_try_stmt, 3150), (sym_ERR_clause_outside_try, 3150),
     (sym_begin_path_expression, 2943), (sym_invocation, 2934), (sym_any_invocation, 2935),
     (sym_this_invocation, 2641), (sym_super_invocation, 2641), (sym_super_body_invocation, 2935),
     (sym_path_expression, 2627), (sym_field_expression, 2373), (sym_index_expression, 2373),
     (sym_ladder_diagram, 7970), (sym_fb_diagram, 7970),
     (aux_sym_ERR_fb_variables_after_method_repeat1, 427), (aux_sym_func_decl_repeat1, 7194),
     (aux_sym_func_decl_repeat2, 302), (aux_sym_fb_decl_repeat1, 97),
     (aux_sym_fb_decl_repeat2, 195), (aux_sym_fb_decl_repeat3, 471), (aux_sym_SFC_repeat1, 7612),
     (aux_sym_stmt_list_repeat1, 2024), (aux_sym_ladder_diagram_repeat1, 8009),
     (aux_sym_fb_diagram_repeat1, 8013), (sym_identifier, 298),
     (aux_sym_ERR_implements_before_extends_token1, 300),
     (aux_sym_ERR_extends_multiple_times_token1, 302),
     (aux_sym_ERR_unexpected_this_in_path_token1, 304),
     (aux_sym_ERR_unexpected_super_in_path_token1, 306), (sym_line_comment, 3),
     (anon_sym_LBRACE, 308), (aux_sym_test_pragma_token1, 9), (aux_sym_once_pragma_token1, 11),
     (aux_sym_must_call_pragma_token1, 13), (aux_sym_export_pragma_token1, 15),
     (anon_sym_SEMI, 310), (anon_sym_PERCENT, 312), (aux_sym_input_decls_token1, 314),
     (aux_sym_output_decls_token1, 316), (aux_sym_in_out_decls_token1, 318),
     (aux_sym_var_decls_token1, 320), (aux_sym_temp_var_decls_token1, 322),
     (aux_sym_external_var_decls_token1, 324), (aux_sym_global_var_decls_token1, 326),
     (aux_sym_fb_decl_token4, 328), (aux_sym_method_decl_token1, 330),
     (aux_sym_prog_access_decls_token1, 332), (aux_sym_initial_step_token1, 334),
     (aux_sym_config_init_token1, 336), (aux_sym_using_directive_token1, 338),
     (aux_sym__stmt_token1, 340), (aux_sym__stmt_token2, 340), (aux_sym__stmt_token3, 340),
     (aux_sym_if_stmt_token1, 342), (aux_sym_case_stmt_token1, 344), (aux_sym_for_stmt_token1, 346),
     (aux_sym_while_stmt_token1, 348), (aux_sym_repeat_stmt_token1, 350),
     (aux_sym_raise_stmt_token1, 352), (aux_sym_try_stmt_token1, 354),
     (aux_sym_try_stmt_token2, 356), (aux_sym_catch_clause_token1, 356),
     (aux_sym_finally_clause_token1, 356), (sym_ld_rung, 358), (sym_fbd_network, 360),
     (sym_c_style_comment, 3), (sym_pascal_style_comment, 3), (sym_pragma, 3)]"

lemma ts_parse_row_90_scan: "row_scan tokens_63_2 0 ts_parse_row_90 = Some (Suc (Suc (Suc (Suc 0))))"
  unfolding ts_parse_row_90_def by simp

text \<open>Lines 64398 to 64520.\<close>

definition ts_parse_row_91 :: parse_row where
  "ts_parse_row_91 =
    [(sym_ERR_implements_before_extends, 112), (sym_ERR_implements_multiple_times, 193),
     (sym_ERR_extends_multiple_times, 113), (sym_ERR_assign_func_call, 7530),
     (sym_ERR_unexpected_this_in_path, 2372), (sym_ERR_unexpected_super_in_path, 2372),
     (sym_ERR_fb_variables_after_method, 1952), (sym_ERR_var_access_not_allowed, 3160),
     (sym_ERR_var_config_not_allowed, 3160), (sym_ERR_var_global_not_allowed, 3160),
     (sym_ERR_method_decl_in_body, 3150), (sym_extern_pragma, 7490), (sym_wasm_pragma, 3150),
     (sym_warn_pragma, 7490), (sym_allow_pragma, 3140), (sym_test_pragma, 7490),
     (sym_once_pragma, 7490), (sym_must_call_pragma, 7490), (sym_export_pragma, 7490),
     (sym_pou_pragma, 7194), (sym_direct_variable, 7675), (sym_deref_expression, 2373),
     (sym_variable, 7599), (sym_var_access, 2373), (sym_in_out_decls, 3160), (sym_var_decls, 3160),
     (sym_retain_var_decls, 3160), (sym_temp_var_decls, 3160), (sym_external_var_decls, 3160),
     (sym_global_var_decls, 2947), (sym_loc_partly_var_decl, 3160), (sym__fb_variables, 498),
     (sym_fb_input_decls, 3160), (sym_fb_output_decls, 3160), (sym_no_retain_var_decls, 3160),
     (sym_fb_body, 8549), (sym_method_decl, 770), (sym_prog_access_decls, 3043), (sym_SFC, 7970),
     (sym_SFC_network, 7612), (sym_initial_step, 7439), (sym_config_init, 3047),
     (sym_using_directive, 276), (sym_variable_access, 7530), (sym_func_call, 2961),
     (sym_stmt_list, 7970), (sym__stmt, 2024), (sym_assign, 3150), (sym_if_stmt, 3150),
     (sym_case_stmt, 3150), (sym_for_stmt, 3150), (sym_while_stmt, 3150), (sym_repeat_stmt, 3150),
     (sym_raise_stmt, 3150), (sym_try_stmt, 3150), (sym_ERR_clause_outside_try, 3150),
     (sym_begin_path_expression, 2943), (sym_invocation, 2934), (sym_any_invocation, 2935),
     (sym_this_invocation, 2641), (sym_super_invocation, 2641), (sym_super_body_invocation, 2935),
     (sym_path_expression, 2627), (sym_field_expression, 2373), (sym_index_expression, 2373),
     (sym_ladder_diagram, 7970), (sym_fb_diagram, 7970),
     (aux_sym_ERR_fb_variables_after_method_repeat1, 498), (aux_sym_func_decl_repeat1, 7194),
     (aux_sym_func_decl_repeat2, 276), (aux_sym_fb_decl_repeat1, 113),
     (aux_sym_fb_decl_repeat2, 193), (aux_sym_fb_decl_repeat3, 770), (aux_sym_SFC_repeat1, 7612),
     (aux_sym_stmt_list_repeat1, 2024), (aux_sym_ladder_diagram_repeat1, 8009),
     (aux_sym_fb_diagram_repeat1, 8013), (sym_identifier, 298),
     (aux_sym_ERR_implements_before_extends_token1, 362),
     (aux_sym_ERR_extends_multiple_times_token1, 364),
     (aux_sym_ERR_unexpected_this_in_path_token1, 304),
     (aux_sym_ERR_unexpected_super_in_path_token1, 306), (sym_line_comment, 3),
     (anon_sym_LBRACE, 308), (aux_sym_test_pragma_token1, 9), (aux_sym_once_pragma_token1, 11),
     (aux_sym_must_call_pragma_token1, 13), (aux_sym_export_pragma_token1, 15),
     (anon_sym_SEMI, 310), (anon_sym_PERCENT, 312), (aux_sym_input_decls_token1, 314),
     (aux_sym_output_decls_token1, 316), (aux_sym_in_out_decls_token1, 318),
     (aux_sym_var_decls_token1, 320), (aux_sym_temp_var_decls_token1, 322),
     (aux_sym_external_var_decls_token1, 324), (aux_sym_global_var_decls_token1, 326),
     (aux_sym_fb_decl_token4, 366), (aux_sym_method_decl_token1, 330),
     (aux_sym_prog_access_decls_token1, 332), (aux_sym_initial_step_token1, 334),
     (aux_sym_config_init_token1, 336), (aux_sym_using_directive_token1, 338),
     (aux_sym__stmt_token1, 340), (aux_sym__stmt_token2, 340), (aux_sym__stmt_token3, 340),
     (aux_sym_if_stmt_token1, 342), (aux_sym_case_stmt_token1, 344), (aux_sym_for_stmt_token1, 346),
     (aux_sym_while_stmt_token1, 348), (aux_sym_repeat_stmt_token1, 350),
     (aux_sym_raise_stmt_token1, 352), (aux_sym_try_stmt_token1, 354),
     (aux_sym_try_stmt_token2, 356), (aux_sym_catch_clause_token1, 356),
     (aux_sym_finally_clause_token1, 356), (sym_ld_rung, 358), (sym_fbd_network, 360),
     (sym_c_style_comment, 3), (sym_pascal_style_comment, 3), (sym_pragma, 3)]"

lemma ts_parse_row_91_scan: "row_scan tokens_63_2 0 ts_parse_row_91 = Some (Suc (Suc (Suc (Suc 0))))"
  unfolding ts_parse_row_91_def by simp

text \<open>Lines 64521 to 64643.\<close>

definition ts_parse_row_92 :: parse_row where
  "ts_parse_row_92 =
    [(sym_ERR_implements_before_extends, 98), (sym_ERR_implements_multiple_times, 150),
     (sym_ERR_extends_multiple_times, 104), (sym_ERR_assign_func_call, 7530),
     (sym_ERR_unexpected_this_in_path, 2372), (sym_ERR_unexpected_super_in_path, 2372),
     (sym_ERR_fb_variables_after_method, 1228), (sym_ERR_var_access_not_allowed, 3160),
     (sym_ERR_var_config_not_allowed, 3160), (sym_ERR_var_global_not_allowed, 3160),
     (sym_ERR_method_decl_in_body, 3150), (sym_extern_pragma, 7490), (sym_wasm_pragma, 3150),
     (sym_warn_pragma, 7490), (sym_allow_pragma, 3140), (sym_test_pragma, 7490),
     (sym_once_pragma, 7490), (sym_must_call_pragma, 7490), (sym_export_pragma, 7490),
     (sym_pou_pragma, 7194), (sym_direct_variable, 7675), (sym_deref_expression, 2373),
     (sym_variable, 7599), (sym_var_access, 2373), (sym_in_out_decls, 3160), (sym_var_decls, 3160),
     (sym_retain_var_decls, 3160), (sym_temp_var_decls, 3160), (sym_external_var_decls, 3160),
     (sym_global_var_decls, 2947), (sym_loc_partly_var_decl, 3160), (sym__fb_variables, 375),
     (sym_fb_input_decls, 3160), (sym_fb_output_decls, 3160), (sym_no_retain_var_decls, 3160),
     (sym_fb_body, 8490), (sym_method_decl, 613), (sym_prog_access_decls, 3043), (sym_SFC, 7970),
     (sym_SFC_network, 7612), (sym_initial_step, 7439), (sym_config_init, 3047),
     (sym_using_directive, 219), (sym_variable_access, 7530), (sym_func_call, 2961),
     (sym_stmt_list, 7970), (sym__stmt, 2024), (sym_assign, 3150), (sym_if_stmt, 3150),
     (sym_case_stmt, 3150), (sym_for_stmt, 3150), (sym_while_stmt, 3150), (sym_repeat_stmt, 3150),
     (sym_raise_stmt, 3150), (sym_try_stmt, 3150), (sym_ERR_clause_outside_try, 3150),
     (sym_begin_path_expression, 2943), (sym_invocation, 2934), (sym_any_invocation, 2935),
     (sym_this_invocation, 2641), (sym_super_invocation, 2641), (sym_super_body_invocation, 2935),
     (sym_path_expression, 2627), (sym_field_expression, 2373), (sym_index_expression, 2373),
     (sym_ladder_diagram, 7970), (sym_fb_diagram, 7970),
     (aux_sym_ERR_fb_variables_after_method_repeat1, 375), (aux_sym_func_decl_repeat1, 7194),
     (aux_sym_func_decl_repeat2, 219), (aux_sym_fb_decl_repeat1, 104),
     (aux_sym_fb_decl_repeat2, 150), (aux_sym_fb_decl_repeat3, 613), (aux_sym_SFC_repeat1, 7612),
     (aux_sym_stmt_list_repeat1, 2024), (aux_sym_ladder_diagram_repeat1, 8009),
     (aux_sym_fb_diagram_repeat1, 8013), (sym_identifier, 298),
     (aux_sym_ERR_implements_before_extends_token1, 368),
     (aux_sym_ERR_extends_multiple_times_token1, 370),
     (aux_sym_ERR_unexpected_this_in_path_token1, 304),
     (aux_sym_ERR_unexpected_super_in_path_token1, 306), (sym_line_comment, 3),
     (anon_sym_LBRACE, 308), (aux_sym_test_pragma_token1, 9), (aux_sym_once_pragma_token1, 11),
     (aux_sym_must_call_pragma_token1, 13), (aux_sym_export_pragma_token1, 15),
     (anon_sym_SEMI, 310), (anon_sym_PERCENT, 312), (aux_sym_input_decls_token1, 314),
     (aux_sym_output_decls_token1, 316), (aux_sym_in_out_decls_token1, 318),
     (aux_sym_var_decls_token1, 320), (aux_sym_temp_var_decls_token1, 322),
     (aux_sym_external_var_decls_token1, 324), (aux_sym_global_var_decls_token1, 326),
     (aux_sym_fb_decl_token4, 372), (aux_sym_method_decl_token1, 330),
     (aux_sym_prog_access_decls_token1, 332), (aux_sym_initial_step_token1, 334),
     (aux_sym_config_init_token1, 336), (aux_sym_using_directive_token1, 338),
     (aux_sym__stmt_token1, 340), (aux_sym__stmt_token2, 340), (aux_sym__stmt_token3, 340),
     (aux_sym_if_stmt_token1, 342), (aux_sym_case_stmt_token1, 344), (aux_sym_for_stmt_token1, 346),
     (aux_sym_while_stmt_token1, 348), (aux_sym_repeat_stmt_token1, 350),
     (aux_sym_raise_stmt_token1, 352), (aux_sym_try_stmt_token1, 354),
     (aux_sym_try_stmt_token2, 356), (aux_sym_catch_clause_token1, 356),
     (aux_sym_finally_clause_token1, 356), (sym_ld_rung, 358), (sym_fbd_network, 360),
     (sym_c_style_comment, 3), (sym_pascal_style_comment, 3), (sym_pragma, 3)]"

lemma ts_parse_row_92_scan: "row_scan tokens_63_2 0 ts_parse_row_92 = Some (Suc (Suc (Suc (Suc 0))))"
  unfolding ts_parse_row_92_def by simp

text \<open>Lines 64644 to 64766.\<close>

definition ts_parse_row_93 :: parse_row where
  "ts_parse_row_93 =
    [(sym_ERR_implements_before_extends, 108), (sym_ERR_implements_multiple_times, 201),
     (sym_ERR_extends_multiple_times, 119), (sym_ERR_assign_func_call, 7530),
     (sym_ERR_unexpected_this_in_path, 2372), (sym_ERR_unexpected_super_in_path, 2372),
     (sym_ERR_fb_variables_after_method, 1526), (sym_ERR_var_access_not_allowed, 3160),
     (sym_ERR_var_config_not_allowed, 3160), (sym_ERR_var_global_not_allowed, 3160),
     (sym_ERR_method_decl_in_body, 3150), (sym_extern_pragma, 7490), (sym_wasm_pragma, 3150),
     (sym_warn_pragma, 7490), (sym_allow_pragma, 3140), (sym_test_pragma, 7490),
     (sym_once_pragma, 7490), (sym_must_call_pragma, 7490), (sym_export_pragma, 7490),
     (sym_pou_pragma, 7194), (sym_direct_variable, 7675), (sym_deref_expression, 2373),
     (sym_variable, 7599), (sym_var_access, 2373), (sym_in_out_decls, 3160), (sym_var_decls, 3160),
     (sym_retain_var_decls, 3160), (sym_temp_var_decls, 3160), (sym_external_var_decls, 3160),
     (sym_global_var_decls, 2947), (sym_loc_partly_var_decl, 3160), (sym__fb_variables, 566),
     (sym_fb_input_decls, 3160), (sym_fb_output_decls, 3160), (sym_no_retain_var_decls, 3160),
     (sym_fb_body, 8796), (sym_method_decl, 359), (sym_prog_access_decls, 3043), (sym_SFC, 7970),
     (sym_SFC_network, 7612), (sym_initial_step, 7439), (sym_config_init, 3047),
     (sym_using_directive, 290), (sym_variable_access, 7530), (sym_func_call, 2961),
     (sym_stmt_list, 7970), (sym__stmt, 2024), (sym_assign, 3150), (sym_if_stmt, 3150),
     (sym_case_stmt, 3150), (sym_for_stmt, 3150), (sym_while_stmt, 3150), (sym_repeat_stmt, 3150),
     (sym_raise_stmt, 3150), (sym_try_stmt, 3150), (sym_ERR_clause_outside_try, 3150),
     (sym_begin_path_expression, 2943), (sym_invocation, 2934), (sym_any_invocation, 2935),
     (sym_this_invocation, 2641), (sym_super_invocation, 2641), (sym_super_body_invocation, 2935),
     (sym_path_expression, 2627), (sym_field_expression, 2373), (sym_index_expression, 2373),
     (sym_ladder_diagram, 7970), (sym_fb_diagram, 7970),
     (aux_sym_ERR_fb_variables_after_method_repeat1, 566), (aux_sym_func_decl_repeat1, 7194),
     (aux_sym_func_decl_repeat2, 290), (aux_sym_fb_decl_repeat1, 119),
     (aux_sym_fb_decl_repeat2, 201), (aux_sym_fb_decl_repeat3, 359), (aux_sym_SFC_repeat1, 7612),
     (aux_sym_stmt_list_repeat1, 2024), (aux_sym_ladder_diagram_repeat1, 8009),
     (aux_sym_fb_diagram_repeat1, 8013), (sym_identifier, 298),
     (aux_sym_ERR_implements_before_extends_token1, 374),
     (aux_sym_ERR_extends_multiple_times_token1, 376),
     (aux_sym_ERR_unexpected_this_in_path_token1, 304),
     (aux_sym_ERR_unexpected_super_in_path_token1, 306), (sym_line_comment, 3),
     (anon_sym_LBRACE, 308), (aux_sym_test_pragma_token1, 9), (aux_sym_once_pragma_token1, 11),
     (aux_sym_must_call_pragma_token1, 13), (aux_sym_export_pragma_token1, 15),
     (anon_sym_SEMI, 310), (anon_sym_PERCENT, 312), (aux_sym_input_decls_token1, 314),
     (aux_sym_output_decls_token1, 316), (aux_sym_in_out_decls_token1, 318),
     (aux_sym_var_decls_token1, 320), (aux_sym_temp_var_decls_token1, 322),
     (aux_sym_external_var_decls_token1, 324), (aux_sym_global_var_decls_token1, 326),
     (aux_sym_fb_decl_token4, 378), (aux_sym_method_decl_token1, 330),
     (aux_sym_prog_access_decls_token1, 332), (aux_sym_initial_step_token1, 334),
     (aux_sym_config_init_token1, 336), (aux_sym_using_directive_token1, 338),
     (aux_sym__stmt_token1, 340), (aux_sym__stmt_token2, 340), (aux_sym__stmt_token3, 340),
     (aux_sym_if_stmt_token1, 342), (aux_sym_case_stmt_token1, 344), (aux_sym_for_stmt_token1, 346),
     (aux_sym_while_stmt_token1, 348), (aux_sym_repeat_stmt_token1, 350),
     (aux_sym_raise_stmt_token1, 352), (aux_sym_try_stmt_token1, 354),
     (aux_sym_try_stmt_token2, 356), (aux_sym_catch_clause_token1, 356),
     (aux_sym_finally_clause_token1, 356), (sym_ld_rung, 358), (sym_fbd_network, 360),
     (sym_c_style_comment, 3), (sym_pascal_style_comment, 3), (sym_pragma, 3)]"

lemma ts_parse_row_93_scan: "row_scan tokens_63_2 0 ts_parse_row_93 = Some (Suc (Suc (Suc (Suc 0))))"
  unfolding ts_parse_row_93_def by simp

text \<open>Lines 64767 to 64888.\<close>

definition ts_parse_row_94 :: parse_row where
  "ts_parse_row_94 =
    [(sym_ERR_implements_multiple_times, 167), (sym_ERR_extends_multiple_times, 2940),
     (sym_ERR_assign_func_call, 7530), (sym_ERR_unexpected_this_in_path, 2372),
     (sym_ERR_unexpected_super_in_path, 2372), (sym_ERR_fb_variables_after_method, 1938),
     (sym_ERR_var_access_not_allowed, 3160), (sym_ERR_var_config_not_allowed, 3160),
     (sym_ERR_var_global_not_allowed, 3160), (sym_ERR_method_decl_in_body, 3150),
     (sym_extern_pragma, 7490), (sym_wasm_pragma, 3150), (sym_warn_pragma, 7490),
     (sym_allow_pragma, 3140), (sym_test_pragma, 7490), (sym_once_pragma, 7490),
     (sym_must_call_pragma, 7490), (sym_export_pragma, 7490), (sym_pou_pragma, 7194),
     (sym_direct_variable, 7675), (sym_deref_expression, 2373), (sym_variable, 7599),
     (sym_var_access, 2373), (sym_in_out_decls, 3160), (sym_var_decls, 3160),
     (sym_retain_var_decls, 3160), (sym_temp_var_decls, 3160), (sym_external_var_decls, 3160),
     (sym_global_var_decls, 2947), (sym_loc_partly_var_decl, 3160), (sym__fb_variables, 465),
     (sym_fb_input_decls, 3160), (sym_fb_output_decls, 3160), (sym_no_retain_var_decls, 3160),
     (sym_fb_body, 9552), (sym_method_decl, 468), (sym_prog_access_decls, 3043), (sym_SFC, 7970),
     (sym_SFC_network, 7612), (sym_initial_step, 7439), (sym_config_init, 3047),
     (sym_using_directive, 210), (sym_variable_access, 7530), (sym_func_call, 2961),
     (sym_stmt_list, 7970), (sym__stmt, 2024), (sym_assign, 3150), (sym_if_stmt, 3150),
     (sym_case_stmt, 3150), (sym_for_stmt, 3150), (sym_while_stmt, 3150), (sym_repeat_stmt, 3150),
     (sym_raise_stmt, 3150), (sym_try_stmt, 3150), (sym_ERR_clause_outside_try, 3150),
     (sym_begin_path_expression, 2943), (sym_invocation, 2934), (sym_any_invocation, 2935),
     (sym_this_invocation, 2641), (sym_super_invocation, 2641), (sym_super_body_invocation, 2935),
     (sym_path_expression, 2627), (sym_field_expression, 2373), (sym_index_expression, 2373),
     (sym_ladder_diagram, 7970), (sym_fb_diagram, 7970),
     (aux_sym_ERR_fb_variables_after_method_repeat1, 465), (aux_sym_func_decl_repeat1, 7194),
     (aux_sym_func_decl_repeat2, 210), (aux_sym_fb_decl_repeat1, 2940),
     (aux_sym_fb_decl_repeat2, 167), (aux_sym_fb_decl_repeat3, 468), (aux_sym_SFC_repeat1, 7612),
     (aux_sym_stmt_list_repeat1, 2024), (aux_sym_ladder_diagram_repeat1, 8009),
     (aux_sym_fb_diagram_repeat1, 8013), (sym_identifier, 298),
     (aux_sym_ERR_implements_before_extends_token1, 380),
     (aux_sym_ERR_extends_multiple_times_token1, 382),
     (aux_sym_ERR_unexpected_this_in_path_token1, 304),
     (aux_sym_ERR_unexpected_super_in_path_token1, 306), (sym_line_comment, 3),
     (anon_sym_LBRACE, 308), (aux_sym_test_pragma_token1, 9), (aux_sym_once_pragma_token1, 11),
     (aux_sym_must_call_pragma_token1, 13), (aux_sym_export_pragma_token1, 15),
     (anon_sym_SEMI, 310), (anon_sym_PERCENT, 312), (aux_sym_input_decls_token1, 314),
     (aux_sym_output_decls_token1, 316), (aux_sym_in_out_decls_token1, 318),
     (aux_sym_var_decls_token1, 320), (aux_sym_temp_var_decls_token1, 322),
     (aux_sym_external_var_decls_token1, 324), (aux_sym_global_var_decls_token1, 326),
     (aux_sym_fb_decl_token4, 384), (aux_sym_method_decl_token1, 330),
     (aux_sym_prog_access_decls_token1, 332), (aux_sym_initial_step_token1, 334),
     (aux_sym_config_init_token1, 336), (aux_sym_using_directive_token1, 338),
     (aux_sym__stmt_token1, 340), (aux_sym__stmt_token2, 340), (aux_sym__stmt_token3, 340),
     (aux_sym_if_stmt_token1, 342), (aux_sym_case_stmt_token1, 344), (aux_sym_for_stmt_token1, 346),
     (aux_sym_while_stmt_token1, 348), (aux_sym_repeat_stmt_token1, 350),
     (aux_sym_raise_stmt_token1, 352), (aux_sym_try_stmt_token1, 354),
     (aux_sym_try_stmt_token2, 356), (aux_sym_catch_clause_token1, 356),
     (aux_sym_finally_clause_token1, 356), (sym_ld_rung, 358), (sym_fbd_network, 360),
     (sym_c_style_comment, 3), (sym_pascal_style_comment, 3), (sym_pragma, 3)]"

lemma ts_parse_row_94_scan: "row_scan tokens_63_2 0 ts_parse_row_94 = Some (Suc (Suc (Suc (Suc 0))))"
  unfolding ts_parse_row_94_def by simp

text \<open>Lines 64889 to 65010.\<close>

definition ts_parse_row_95 :: parse_row where
  "ts_parse_row_95 =
    [(sym_ERR_implements_multiple_times, 137), (sym_ERR_extends_multiple_times, 2940),
     (sym_ERR_assign_func_call, 7530), (sym_ERR_unexpected_this_in_path, 2372),
     (sym_ERR_unexpected_super_in_path, 2372), (sym_ERR_fb_variables_after_method, 1312),
     (sym_ERR_var_access_not_allowed, 3160), (sym_ERR_var_config_not_allowed, 3160),
     (sym_ERR_var_global_not_allowed, 3160), (sym_ERR_method_decl_in_body, 3150),
     (sym_extern_pragma, 7490), (sym_wasm_pragma, 3150), (sym_warn_pragma, 7490),
     (sym_allow_pragma, 3140), (sym_test_pragma, 7490), (sym_once_pragma, 7490),
     (sym_must_call_pragma, 7490), (sym_export_pragma, 7490), (sym_pou_pragma, 7194),
     (sym_direct_variable, 7675), (sym_deref_expression, 2373), (sym_variable, 7599),
     (sym_var_access, 2373), (sym_in_out_decls, 3160), (sym_var_decls, 3160),
     (sym_retain_var_decls, 3160), (sym_temp_var_decls, 3160), (sym_external_var_decls, 3160),
     (sym_global_var_decls, 2947), (sym_loc_partly_var_decl, 3160), (sym__fb_variables, 752),
     (sym_fb_input_decls, 3160), (sym_fb_output_decls, 3160), (sym_no_retain_var_decls, 3160),
     (sym_fb_body, 10005), (sym_method_decl, 781), (sym_prog_access_decls, 3043), (sym_SFC, 7970),
     (sym_SFC_network, 7612), (sym_initial_step, 7439), (sym_config_init, 3047),
     (sym_using_directive, 277), (sym_variable_access, 7530), (sym_func_call, 2961),
     (sym_stmt_list, 7970), (sym__stmt, 2024), (sym_assign, 3150), (sym_if_stmt, 3150),
     (sym_case_stmt, 3150), (sym_for_stmt, 3150), (sym_while_stmt, 3150), (sym_repeat_stmt, 3150),
     (sym_raise_stmt, 3150), (sym_try_stmt, 3150), (sym_ERR_clause_outside_try, 3150),
     (sym_begin_path_expression, 2943), (sym_invocation, 2934), (sym_any_invocation, 2935),
     (sym_this_invocation, 2641), (sym_super_invocation, 2641), (sym_super_body_invocation, 2935),
     (sym_path_expression, 2627), (sym_field_expression, 2373), (sym_index_expression, 2373),
     (sym_ladder_diagram, 7970), (sym_fb_diagram, 7970),
     (aux_sym_ERR_fb_variables_after_method_repeat1, 752), (aux_sym_func_decl_repeat1, 7194),
     (aux_sym_func_decl_repeat2, 277), (aux_sym_fb_decl_repeat1, 2940),
     (aux_sym_fb_decl_repeat2, 137), (aux_sym_fb_decl_repeat3, 781), (aux_sym_SFC_repeat1, 7612),
     (aux_sym_stmt_list_repeat1, 2024), (aux_sym_ladder_diagram_repeat1, 8009),
     (aux_sym_fb_diagram_repeat1, 8013), (sym_identifier, 298),
     (aux_sym_ERR_implements_before_extends_token1, 386),
     (aux_sym_ERR_extends_multiple_times_token1, 382),
     (aux_sym_ERR_unexpected_this_in_path_token1, 304),
     (aux_sym_ERR_unexpected_super_in_path_token1, 306), (sym_line_comment, 3),
     (anon_sym_LBRACE, 308), (aux_sym_test_pragma_token1, 9), (aux_sym_once_pragma_token1, 11),
     (aux_sym_must_call_pragma_token1, 13), (aux_sym_export_pragma_token1, 15),
     (anon_sym_SEMI, 310), (anon_sym_PERCENT, 312), (aux_sym_input_decls_token1, 314),
     (aux_sym_output_decls_token1, 316), (aux_sym_in_out_decls_token1, 318),
     (aux_sym_var_decls_token1, 320), (aux_sym_temp_var_decls_token1, 322),
     (aux_sym_external_var_decls_token1, 324), (aux_sym_global_var_decls_token1, 326),
     (aux_sym_fb_decl_token4, 388), (aux_sym_method_decl_token1, 330),
     (aux_sym_prog_access_decls_token1, 332), (aux_sym_initial_step_token1, 334),
     (aux_sym_config_init_token1, 336), (aux_sym_using_directive_token1, 338),
     (aux_sym__stmt_token1, 340), (aux_sym__stmt_token2, 340), (aux_sym__stmt_token3, 340),
     (aux_sym_if_stmt_token1, 342), (aux_sym_case_stmt_token1, 344), (aux_sym_for_stmt_token1, 346),
     (aux_sym_while_stmt_token1, 348), (aux_sym_repeat_stmt_token1, 350),
     (aux_sym_raise_stmt_token1, 352), (aux_sym_try_stmt_token1, 354),
     (aux_sym_try_stmt_token2, 356), (aux_sym_catch_clause_token1, 356),
     (aux_sym_finally_clause_token1, 356), (sym_ld_rung, 358), (sym_fbd_network, 360),
     (sym_c_style_comment, 3), (sym_pascal_style_comment, 3), (sym_pragma, 3)]"

lemma ts_parse_row_95_scan: "row_scan tokens_63_2 0 ts_parse_row_95 = Some (Suc (Suc (Suc (Suc 0))))"
  unfolding ts_parse_row_95_def by simp

text \<open>Lines 65011 to 65132.\<close>

definition ts_parse_row_96 :: parse_row where
  "ts_parse_row_96 =
    [(sym_ERR_implements_multiple_times, 147), (sym_ERR_extends_multiple_times, 94),
     (sym_ERR_assign_func_call, 7530), (sym_ERR_unexpected_this_in_path, 2372),
     (sym_ERR_unexpected_super_in_path, 2372), (sym_ERR_fb_variables_after_method, 1453),
     (sym_ERR_var_access_not_allowed, 3160), (sym_ERR_var_config_not_allowed, 3160),
     (sym_ERR_var_global_not_allowed, 3160), (sym_ERR_method_decl_in_body, 3150),
     (sym_extern_pragma, 7490), (sym_wasm_pragma, 3150), (sym_warn_pragma, 7490),
     (sym_allow_pragma, 3140), (sym_test_pragma, 7490), (sym_once_pragma, 7490),
     (sym_must_call_pragma, 7490), (sym_export_pragma, 7490), (sym_pou_pragma, 7194),
     (sym_direct_variable, 7675), (sym_deref_expression, 2373), (sym_variable, 7599),
     (sym_var_access, 2373), (sym_in_out_decls, 3160), (sym_var_decls, 3160),
     (sym_retain_var_decls, 3160), (sym_temp_var_decls, 3160), (sym_external_var_decls, 3160),
     (sym_global_var_decls, 2947), (sym_loc_partly_var_decl, 3160), (sym__fb_variables, 314),
     (sym_fb_input_decls, 3160), (sym_fb_output_decls, 3160), (sym_no_retain_var_decls, 3160),
     (sym_fb_body, 10434), (sym_method_decl, 318), (sym_prog_access_decls, 3043), (sym_SFC, 7970),
     (sym_SFC_network, 7612), (sym_initial_step, 7439), (sym_config_init, 3047),
     (sym_using_directive, 258), (sym_variable_access, 7530), (sym_func_call, 2961),
     (sym_stmt_list, 7970), (sym__stmt, 2024), (sym_assign, 3150), (sym_if_stmt, 3150),
     (sym_case_stmt, 3150), (sym_for_stmt, 3150), (sym_while_stmt, 3150), (sym_repeat_stmt, 3150),
     (sym_raise_stmt, 3150), (sym_try_stmt, 3150), (sym_ERR_clause_outside_try, 3150),
     (sym_begin_path_expression, 2943), (sym_invocation, 2934), (sym_any_invocation, 2935),
     (sym_this_invocation, 2641), (sym_super_invocation, 2641), (sym_super_body_invocation, 2935),
     (sym_path_expression, 2627), (sym_field_expression, 2373), (sym_index_expression, 2373),
     (sym_ladder_diagram, 7970), (sym_fb_diagram, 7970),
     (aux_sym_ERR_fb_variables_after_method_repeat1, 314), (aux_sym_func_decl_repeat1, 7194),
     (aux_sym_func_decl_repeat2, 258), (aux_sym_fb_decl_repeat1, 94),
     (aux_sym_fb_decl_repeat2, 147), (aux_sym_fb_decl_repeat3, 318), (aux_sym_SFC_repeat1, 7612),
     (aux_sym_stmt_list_repeat1, 2024), (aux_sym_ladder_diagram_repeat1, 8009),
     (aux_sym_fb_diagram_repeat1, 8013), (sym_identifier, 298),
     (aux_sym_ERR_implements_before_extends_token1, 390),
     (aux_sym_ERR_extends_multiple_times_token1, 382),
     (aux_sym_ERR_unexpected_this_in_path_token1, 304),
     (aux_sym_ERR_unexpected_super_in_path_token1, 306), (sym_line_comment, 3),
     (anon_sym_LBRACE, 308), (aux_sym_test_pragma_token1, 9), (aux_sym_once_pragma_token1, 11),
     (aux_sym_must_call_pragma_token1, 13), (aux_sym_export_pragma_token1, 15),
     (anon_sym_SEMI, 310), (anon_sym_PERCENT, 312), (aux_sym_input_decls_token1, 314),
     (aux_sym_output_decls_token1, 316), (aux_sym_in_out_decls_token1, 318),
     (aux_sym_var_decls_token1, 320), (aux_sym_temp_var_decls_token1, 322),
     (aux_sym_external_var_decls_token1, 324), (aux_sym_global_var_decls_token1, 326),
     (aux_sym_fb_decl_token4, 392), (aux_sym_method_decl_token1, 330),
     (aux_sym_prog_access_decls_token1, 332), (aux_sym_initial_step_token1, 334),
     (aux_sym_config_init_token1, 336), (aux_sym_using_directive_token1, 338),
     (aux_sym__stmt_token1, 340), (aux_sym__stmt_token2, 340), (aux_sym__stmt_token3, 340),
     (aux_sym_if_stmt_token1, 342), (aux_sym_case_stmt_token1, 344), (aux_sym_for_stmt_token1, 346),
     (aux_sym_while_stmt_token1, 348), (aux_sym_repeat_stmt_token1, 350),
     (aux_sym_raise_stmt_token1, 352), (aux_sym_try_stmt_token1, 354),
     (aux_sym_try_stmt_token2, 356), (aux_sym_catch_clause_token1, 356),
     (aux_sym_finally_clause_token1, 356), (sym_ld_rung, 358), (sym_fbd_network, 360),
     (sym_c_style_comment, 3), (sym_pascal_style_comment, 3), (sym_pragma, 3)]"

lemma ts_parse_row_96_scan: "row_scan tokens_63_2 0 ts_parse_row_96 = Some (Suc (Suc (Suc (Suc 0))))"
  unfolding ts_parse_row_96_def by simp

text \<open>Lines 65133 to 65254.\<close>

definition ts_parse_row_97 :: parse_row where
  "ts_parse_row_97 =
    [(sym_ERR_implements_multiple_times, 200), (sym_ERR_extends_multiple_times, 2940),
     (sym_ERR_assign_func_call, 7530), (sym_ERR_unexpected_this_in_path, 2372),
     (sym_ERR_unexpected_super_in_path, 2372), (sym_ERR_fb_variables_after_method, 1796),
     (sym_ERR_var_access_not_allowed, 3160), (sym_ERR_var_config_not_allowed, 3160),
     (sym_ERR_var_global_not_allowed, 3160), (sym_ERR_method_decl_in_body, 3150),
     (sym_extern_pragma, 7490), (sym_wasm_pragma, 3150), (sym_warn_pragma, 7490),
     (sym_allow_pragma, 3140), (sym_test_pragma, 7490), (sym_once_pragma, 7490),
     (sym_must_call_pragma, 7490), (sym_export_pragma, 7490), (sym_pou_pragma, 7194),
     (sym_direct_variable, 7675), (sym_deref_expression, 2373), (sym_variable, 7599),
     (sym_var_access, 2373), (sym_in_out_decls, 3160), (sym_var_decls, 3160),
     (sym_retain_var_decls, 3160), (sym_temp_var_decls, 3160), (sym_external_var_decls, 3160),
     (sym_global_var_decls, 2947), (sym_loc_partly_var_decl, 3160), (sym__fb_variables, 428),
     (sym_fb_input_decls, 3160), (sym_fb_output_decls, 3160), (sym_no_retain_var_decls, 3160),
     (sym_fb_body, 10493), (sym_method_decl, 717), (sym_prog_access_decls, 3043), (sym_SFC, 7970),
     (sym_SFC_network, 7612), (sym_initial_step, 7439), (sym_config_init, 3047),
     (sym_using_directive, 288), (sym_variable_access, 7530), (sym_func_call, 2961),
     (sym_stmt_list, 7970), (sym__stmt, 2024), (sym_assign, 3150), (sym_if_stmt, 3150),
     (sym_case_stmt, 3150), (sym_for_stmt, 3150), (sym_while_stmt, 3150), (sym_repeat_stmt, 3150),
     (sym_raise_stmt, 3150), (sym_try_stmt, 3150), (sym_ERR_clause_outside_try, 3150),
     (sym_begin_path_expression, 2943), (sym_invocation, 2934), (sym_any_invocation, 2935),
     (sym_this_invocation, 2641), (sym_super_invocation, 2641), (sym_super_body_invocation, 2935),
     (sym_path_expression, 2627), (sym_field_expression, 2373), (sym_index_expression, 2373),
     (sym_ladder_diagram, 7970), (sym_fb_diagram, 7970),
     (aux_sym_ERR_fb_variables_after_method_repeat1, 428), (aux_sym_func_decl_repeat1, 7194),
     (aux_sym_func_decl_repeat2, 288), (aux_sym_fb_decl_repeat1, 2940),
     (aux_sym_fb_decl_repeat2, 200), (aux_sym_fb_decl_repeat3, 717), (aux_sym_SFC_repeat1, 7612),
     (aux_sym_stmt_list_repeat1, 2024), (aux_sym_ladder_diagram_repeat1, 8009),
     (aux_sym_fb_diagram_repeat1, 8013), (sym_identifier, 298),
     (aux_sym_ERR_implements_before_extends_token1, 394),
     (aux_sym_ERR_extends_multiple_times_token1, 382),
     (aux_sym_ERR_unexpected_this_in_path_token1, 304),
     (aux_sym_ERR_unexpected_super_in_path_token1, 306), (sym_line_comment, 3),
     (anon_sym_LBRACE, 308), (aux_sym_test_pragma_token1, 9), (aux_sym_once_pragma_token1, 11),
     (aux_sym_must_call_pragma_token1, 13), (aux_sym_export_pragma_token1, 15),
     (anon_sym_SEMI, 310), (anon_sym_PERCENT, 312), (aux_sym_input_decls_token1, 314),
     (aux_sym_output_decls_token1, 316), (aux_sym_in_out_decls_token1, 318),
     (aux_sym_var_decls_token1, 320), (aux_sym_temp_var_decls_token1, 322),
     (aux_sym_external_var_decls_token1, 324), (aux_sym_global_var_decls_token1, 326),
     (aux_sym_fb_decl_token4, 396), (aux_sym_method_decl_token1, 330),
     (aux_sym_prog_access_decls_token1, 332), (aux_sym_initial_step_token1, 334),
     (aux_sym_config_init_token1, 336), (aux_sym_using_directive_token1, 338),
     (aux_sym__stmt_token1, 340), (aux_sym__stmt_token2, 340), (aux_sym__stmt_token3, 340),
     (aux_sym_if_stmt_token1, 342), (aux_sym_case_stmt_token1, 344), (aux_sym_for_stmt_token1, 346),
     (aux_sym_while_stmt_token1, 348), (aux_sym_repeat_stmt_token1, 350),
     (aux_sym_raise_stmt_token1, 352), (aux_sym_try_stmt_token1, 354),
     (aux_sym_try_stmt_token2, 356), (aux_sym_catch_clause_token1, 356),
     (aux_sym_finally_clause_token1, 356), (sym_ld_rung, 358), (sym_fbd_network, 360),
     (sym_c_style_comment, 3), (sym_pascal_style_comment, 3), (sym_pragma, 3)]"

lemma ts_parse_row_97_scan: "row_scan tokens_63_2 0 ts_parse_row_97 = Some (Suc (Suc (Suc (Suc 0))))"
  unfolding ts_parse_row_97_def by simp

text \<open>Lines 65255 to 65376.\<close>

definition ts_parse_row_98 :: parse_row where
  "ts_parse_row_98 =
    [(sym_ERR_implements_multiple_times, 196), (sym_ERR_extends_multiple_times, 114),
     (sym_ERR_assign_func_call, 7530), (sym_ERR_unexpected_this_in_path, 2372),
     (sym_ERR_unexpected_super_in_path, 2372), (sym_ERR_fb_variables_after_method, 1967),
     (sym_ERR_var_access_not_allowed, 3160), (sym_ERR_var_config_not_allowed, 3160),
     (sym_ERR_var_global_not_allowed, 3160), (sym_ERR_method_decl_in_body, 3150),
     (sym_extern_pragma, 7490), (sym_wasm_pragma, 3150), (sym_warn_pragma, 7490),
     (sym_allow_pragma, 3140), (sym_test_pragma, 7490), (sym_once_pragma, 7490),
     (sym_must_call_pragma, 7490), (sym_export_pragma, 7490), (sym_pou_pragma, 7194),
     (sym_direct_variable, 7675), (sym_deref_expression, 2373), (sym_variable, 7599),
     (sym_var_access, 2373), (sym_in_out_decls, 3160), (sym_var_decls, 3160),
     (sym_retain_var_decls, 3160), (sym_temp_var_decls, 3160), (sym_external_var_decls, 3160),
     (sym_global_var_decls, 2947), (sym_loc_partly_var_decl, 3160), (sym__fb_variables, 858),
     (sym_fb_input_decls, 3160), (sym_fb_output_decls, 3160), (sym_no_retain_var_decls, 3160),
     (sym_fb_body, 8677), (sym_method_decl, 311), (sym_prog_access_decls, 3043), (sym_SFC, 7970),
     (sym_SFC_network, 7612), (sym_initial_step, 7439), (sym_config_init, 3047),
     (sym_using_directive, 282), (sym_variable_access, 7530), (sym_func_call, 2961),
     (sym_stmt_list, 7970), (sym__stmt, 2024), (sym_assign, 3150), (sym_if_stmt, 3150),
     (sym_case_stmt, 3150), (sym_for_stmt, 3150), (sym_while_stmt, 3150), (sym_repeat_stmt, 3150),
     (sym_raise_stmt, 3150), (sym_try_stmt, 3150), (sym_ERR_clause_outside_try, 3150),
     (sym_begin_path_expression, 2943), (sym_invocation, 2934), (sym_any_invocation, 2935),
     (sym_this_invocation, 2641), (sym_super_invocation, 2641), (sym_super_body_invocation, 2935),
     (sym_path_expression, 2627), (sym_field_expression, 2373), (sym_index_expression, 2373),
     (sym_ladder_diagram, 7970), (sym_fb_diagram, 7970),
     (aux_sym_ERR_fb_variables_after_method_repeat1, 858), (aux_sym_func_decl_repeat1, 7194),
     (aux_sym_func_decl_repeat2, 282), (aux_sym_fb_decl_repeat1, 114),
     (aux_sym_fb_decl_repeat2, 196), (aux_sym_fb_decl_repeat3, 311), (aux_sym_SFC_repeat1, 7612),
     (aux_sym_stmt_list_repeat1, 2024), (aux_sym_ladder_diagram_repeat1, 8009),
     (aux_sym_fb_diagram_repeat1, 8013), (sym_identifier, 298),
     (aux_sym_ERR_implements_before_extends_token1, 398),
     (aux_sym_ERR_extends_multiple_times_token1, 400),
     (aux_sym_ERR_unexpected_this_in_path_token1, 304),
     (aux_sym_ERR_unexpected_super_in_path_token1, 306), (sym_line_comment, 3),
     (anon_sym_LBRACE, 308), (aux_sym_test_pragma_token1, 9), (aux_sym_once_pragma_token1, 11),
     (aux_sym_must_call_pragma_token1, 13), (aux_sym_export_pragma_token1, 15),
     (anon_sym_SEMI, 310), (anon_sym_PERCENT, 312), (aux_sym_input_decls_token1, 314),
     (aux_sym_output_decls_token1, 316), (aux_sym_in_out_decls_token1, 318),
     (aux_sym_var_decls_token1, 320), (aux_sym_temp_var_decls_token1, 322),
     (aux_sym_external_var_decls_token1, 324), (aux_sym_global_var_decls_token1, 326),
     (aux_sym_fb_decl_token4, 402), (aux_sym_method_decl_token1, 330),
     (aux_sym_prog_access_decls_token1, 332), (aux_sym_initial_step_token1, 334),
     (aux_sym_config_init_token1, 336), (aux_sym_using_directive_token1, 338),
     (aux_sym__stmt_token1, 340), (aux_sym__stmt_token2, 340), (aux_sym__stmt_token3, 340),
     (aux_sym_if_stmt_token1, 342), (aux_sym_case_stmt_token1, 344), (aux_sym_for_stmt_token1, 346),
     (aux_sym_while_stmt_token1, 348), (aux_sym_repeat_stmt_token1, 350),
     (aux_sym_raise_stmt_token1, 352), (aux_sym_try_stmt_token1, 354),
     (aux_sym_try_stmt_token2, 356), (aux_sym_catch_clause_token1, 356),
     (aux_sym_finally_clause_token1, 356), (sym_ld_rung, 358), (sym_fbd_network, 360),
     (sym_c_style_comment, 3), (sym_pascal_style_comment, 3), (sym_pragma, 3)]"

lemma ts_parse_row_98_scan: "row_scan tokens_63_2 0 ts_parse_row_98 = Some (Suc (Suc (Suc (Suc 0))))"
  unfolding ts_parse_row_98_def by simp

text \<open>Lines 65377 to 65498.\<close>

definition ts_parse_row_99 :: parse_row where
  "ts_parse_row_99 =
    [(sym_ERR_implements_multiple_times, 181), (sym_ERR_extends_multiple_times, 109),
     (sym_ERR_assign_func_call, 7530), (sym_ERR_unexpected_this_in_path, 2372),
     (sym_ERR_unexpected_super_in_path, 2372), (sym_ERR_fb_variables_after_method, 1876),
     (sym_ERR_var_access_not_allowed, 3160), (sym_ERR_var_config_not_allowed, 3160),
     (sym_ERR_var_global_not_allowed, 3160), (sym_ERR_method_decl_in_body, 3150),
     (sym_extern_pragma, 7490), (sym_wasm_pragma, 3150), (sym_warn_pragma, 7490),
     (sym_allow_pragma, 3140), (sym_test_pragma, 7490), (sym_once_pragma, 7490),
     (sym_must_call_pragma, 7490), (sym_export_pragma, 7490), (sym_pou_pragma, 7194),
     (sym_direct_variable, 7675), (sym_deref_expression, 2373), (sym_variable, 7599),
     (sym_var_access, 2373), (sym_in_out_decls, 3160), (sym_var_decls, 3160),
     (sym_retain_var_decls, 3160), (sym_temp_var_decls, 3160), (sym_external_var_decls, 3160),
     (sym_global_var_decls, 2947), (sym_loc_partly_var_decl, 3160), (sym__fb_variables, 328),
     (sym_fb_input_decls, 3160), (sym_fb_output_decls, 3160), (sym_no_retain_var_decls, 3160),
     (sym_fb_body, 9926), (sym_method_decl, 360), (sym_prog_access_decls, 3043), (sym_SFC, 7970),
     (sym_SFC_network, 7612), (sym_initial_step, 7439), (sym_config_init, 3047),
     (sym_using_directive, 254), (sym_variable_access, 7530), (sym_func_call, 2961),
     (sym_stmt_list, 7970), (sym__stmt, 2024), (sym_assign, 3150), (sym_if_stmt, 3150),
     (sym_case_stmt, 3150), (sym_for_stmt, 3150), (sym_while_stmt, 3150), (sym_repeat_stmt, 3150),
     (sym_raise_stmt, 3150), (sym_try_stmt, 3150), (sym_ERR_clause_outside_try, 3150),
     (sym_begin_path_expression, 2943), (sym_invocation, 2934), (sym_any_invocation, 2935),
     (sym_this_invocation, 2641), (sym_super_invocation, 2641), (sym_super_body_invocation, 2935),
     (sym_path_expression, 2627), (sym_field_expression, 2373), (sym_index_expression, 2373),
     (sym_ladder_diagram, 7970), (sym_fb_diagram, 7970),
     (aux_sym_ERR_fb_variables_after_method_repeat1, 328), (aux_sym_func_decl_repeat1, 7194),
     (aux_sym_func_decl_repeat2, 254), (aux_sym_fb_decl_repeat1, 109),
     (aux_sym_fb_decl_repeat2, 181), (aux_sym_fb_decl_repeat3, 360), (aux_sym_SFC_repeat1, 7612),
     (aux_sym_stmt_list_repeat1, 2024), (aux_sym_ladder_diagram_repeat1, 8009),
     (aux_sym_fb_diagram_repeat1, 8013), (sym_identifier, 298),
     (aux_sym_ERR_implements_before_extends_token1, 404),
     (aux_sym_ERR_extends_multiple_times_token1, 382),
     (aux_sym_ERR_unexpected_this_in_path_token1, 304),
     (aux_sym_ERR_unexpected_super_in_path_token1, 306), (sym_line_comment, 3),
     (anon_sym_LBRACE, 308), (aux_sym_test_pragma_token1, 9), (aux_sym_once_pragma_token1, 11),
     (aux_sym_must_call_pragma_token1, 13), (aux_sym_export_pragma_token1, 15),
     (anon_sym_SEMI, 310), (anon_sym_PERCENT, 312), (aux_sym_input_decls_token1, 314),
     (aux_sym_output_decls_token1, 316), (aux_sym_in_out_decls_token1, 318),
     (aux_sym_var_decls_token1, 320), (aux_sym_temp_var_decls_token1, 322),
     (aux_sym_external_var_decls_token1, 324), (aux_sym_global_var_decls_token1, 326),
     (aux_sym_fb_decl_token4, 406), (aux_sym_method_decl_token1, 330),
     (aux_sym_prog_access_decls_token1, 332), (aux_sym_initial_step_token1, 334),
     (aux_sym_config_init_token1, 336), (aux_sym_using_directive_token1, 338),
     (aux_sym__stmt_token1, 340), (aux_sym__stmt_token2, 340), (aux_sym__stmt_token3, 340),
     (aux_sym_if_stmt_token1, 342), (aux_sym_case_stmt_token1, 344), (aux_sym_for_stmt_token1, 346),
     (aux_sym_while_stmt_token1, 348), (aux_sym_repeat_stmt_token1, 350),
     (aux_sym_raise_stmt_token1, 352), (aux_sym_try_stmt_token1, 354),
     (aux_sym_try_stmt_token2, 356), (aux_sym_catch_clause_token1, 356),
     (aux_sym_finally_clause_token1, 356), (sym_ld_rung, 358), (sym_fbd_network, 360),
     (sym_c_style_comment, 3), (sym_pascal_style_comment, 3), (sym_pragma, 3)]"

lemma ts_parse_row_99_scan: "row_scan tokens_63_2 0 ts_parse_row_99 = Some (Suc (Suc (Suc (Suc 0))))"
  unfolding ts_parse_row_99_def by simp

text \<open>Lines 65499 to 65620.\<close>

definition ts_parse_row_100 :: parse_row where
  "ts_parse_row_100 =
    [(sym_ERR_implements_multiple_times, 191), (sym_ERR_extends_multiple_times, 2940),
     (sym_ERR_assign_func_call, 7530), (sym_ERR_unexpected_this_in_path, 2372),
     (sym_ERR_unexpected_super_in_path, 2372), (sym_ERR_fb_variables_after_method, 1896),
     (sym_ERR_var_access_not_allowed, 3160), (sym_ERR_var_config_not_allowed, 3160),
     (sym_ERR_var_global_not_allowed, 3160), (sym_ERR_method_decl_in_body, 3150),
     (sym_extern_pragma, 7490), (sym_wasm_pragma, 3150), (sym_warn_pragma, 7490),
     (sym_allow_pragma, 3140), (sym_test_pragma, 7490), (sym_once_pragma, 7490),
     (sym_must_call_pragma, 7490), (sym_export_pragma, 7490), (sym_pou_pragma, 7194),
     (sym_direct_variable, 7675), (sym_deref_expression, 2373), (sym_variable, 7599),
     (sym_var_access, 2373), (sym_in_out_decls, 3160), (sym_var_decls, 3160),
     (sym_retain_var_decls, 3160), (sym_temp_var_decls, 3160), (sym_external_var_decls, 3160),
     (sym_global_var_decls, 2947), (sym_loc_partly_var_decl, 3160), (sym__fb_variables, 424),
     (sym_fb_input_decls, 3160), (sym_fb_output_decls, 3160), (sym_no_retain_var_decls, 3160),
     (sym_fb_body, 8803), (sym_method_decl, 432), (sym_prog_access_decls, 3043), (sym_SFC, 7970),
     (sym_SFC_network, 7612), (sym_initial_step, 7439), (sym_config_init, 3047),
     (sym_using_directive, 273), (sym_variable_access, 7530), (sym_func_call, 2961),
     (sym_stmt_list, 7970), (sym__stmt, 2024), (sym_assign, 3150), (sym_if_stmt, 3150),
     (sym_case_stmt, 3150), (sym_for_stmt, 3150), (sym_while_stmt, 3150), (sym_repeat_stmt, 3150),
     (sym_raise_stmt, 3150), (sym_try_stmt, 3150), (sym_ERR_clause_outside_try, 3150),
     (sym_begin_path_expression, 2943), (sym_invocation, 2934), (sym_any_invocation, 2935),
     (sym_this_invocation, 2641), (sym_super_invocation, 2641), (sym_super_body_invocation, 2935),
     (sym_path_expression, 2627), (sym_field_expression, 2373), (sym_index_expression, 2373),
     (sym_ladder_diagram, 7970), (sym_fb_diagram, 7970),
     (aux_sym_ERR_fb_variables_after_method_repeat1, 424), (aux_sym_func_decl_repeat1, 7194),
     (aux_sym_func_decl_repeat2, 273), (aux_sym_fb_decl_repeat1, 2940),
     (aux_sym_fb_decl_repeat2, 191), (aux_sym_fb_decl_repeat3, 432), (aux_sym_SFC_repeat1, 7612),
     (aux_sym_stmt_list_repeat1, 2024), (aux_sym_ladder_diagram_repeat1, 8009),
     (aux_sym_fb_diagram_repeat1, 8013), (sym_identifier, 298),
     (aux_sym_ERR_implements_before_extends_token1, 408),
     (aux_sym_ERR_extends_multiple_times_token1, 382),
     (aux_sym_ERR_unexpected_this_in_path_token1, 304),
     (aux_sym_ERR_unexpected_super_in_path_token1, 306), (sym_line_comment, 3),
     (anon_sym_LBRACE, 308), (aux_sym_test_pragma_token1, 9), (aux_sym_once_pragma_token1, 11),
     (aux_sym_must_call_pragma_token1, 13), (aux_sym_export_pragma_token1, 15),
     (anon_sym_SEMI, 310), (anon_sym_PERCENT, 312), (aux_sym_input_decls_token1, 314),
     (aux_sym_output_decls_token1, 316), (aux_sym_in_out_decls_token1, 318),
     (aux_sym_var_decls_token1, 320), (aux_sym_temp_var_decls_token1, 322),
     (aux_sym_external_var_decls_token1, 324), (aux_sym_global_var_decls_token1, 326),
     (aux_sym_fb_decl_token4, 410), (aux_sym_method_decl_token1, 330),
     (aux_sym_prog_access_decls_token1, 332), (aux_sym_initial_step_token1, 334),
     (aux_sym_config_init_token1, 336), (aux_sym_using_directive_token1, 338),
     (aux_sym__stmt_token1, 340), (aux_sym__stmt_token2, 340), (aux_sym__stmt_token3, 340),
     (aux_sym_if_stmt_token1, 342), (aux_sym_case_stmt_token1, 344), (aux_sym_for_stmt_token1, 346),
     (aux_sym_while_stmt_token1, 348), (aux_sym_repeat_stmt_token1, 350),
     (aux_sym_raise_stmt_token1, 352), (aux_sym_try_stmt_token1, 354),
     (aux_sym_try_stmt_token2, 356), (aux_sym_catch_clause_token1, 356),
     (aux_sym_finally_clause_token1, 356), (sym_ld_rung, 358), (sym_fbd_network, 360),
     (sym_c_style_comment, 3), (sym_pascal_style_comment, 3), (sym_pragma, 3)]"

lemma ts_parse_row_100_scan: "row_scan tokens_63_2 0 ts_parse_row_100 = Some (Suc (Suc (Suc (Suc 0))))"
  unfolding ts_parse_row_100_def by simp

text \<open>Lines 65621 to 65742.\<close>

definition ts_parse_row_101 :: parse_row where
  "ts_parse_row_101 =
    [(sym_ERR_implements_multiple_times, 154), (sym_ERR_extends_multiple_times, 2940),
     (sym_ERR_assign_func_call, 7530), (sym_ERR_unexpected_this_in_path, 2372),
     (sym_ERR_unexpected_super_in_path, 2372), (sym_ERR_fb_variables_after_method, 1660),
     (sym_ERR_var_access_not_allowed, 3160), (sym_ERR_var_config_not_allowed, 3160),
     (sym_ERR_var_global_not_allowed, 3160), (sym_ERR_method_decl_in_body, 3150),
     (sym_extern_pragma, 7490), (sym_wasm_pragma, 3150), (sym_warn_pragma, 7490),
     (sym_allow_pragma, 3140), (sym_test_pragma, 7490), (sym_once_pragma, 7490),
     (sym_must_call_pragma, 7490), (sym_export_pragma, 7490), (sym_pou_pragma, 7194),
     (sym_direct_variable, 7675), (sym_deref_expression, 2373), (sym_variable, 7599),
     (sym_var_access, 2373), (sym_in_out_decls, 3160), (sym_var_decls, 3160),
     (sym_retain_var_decls, 3160), (sym_temp_var_decls, 3160), (sym_external_var_decls, 3160),
     (sym_global_var_decls, 2947), (sym_loc_partly_var_decl, 3160), (sym__fb_variables, 358),
     (sym_fb_input_decls, 3160), (sym_fb_output_decls, 3160), (sym_no_retain_var_decls, 3160),
     (sym_fb_body, 8919), (sym_method_decl, 361), (sym_prog_access_decls, 3043), (sym_SFC, 7970),
     (sym_SFC_network, 7612), (sym_initial_step, 7439), (sym_config_init, 3047),
     (sym_using_directive, 245), (sym_variable_access, 7530), (sym_func_call, 2961),
     (sym_stmt_list, 7970), (sym__stmt, 2024), (sym_assign, 3150), (sym_if_stmt, 3150),
     (sym_case_stmt, 3150), (sym_for_stmt, 3150), (sym_while_stmt, 3150), (sym_repeat_stmt, 3150),
     (sym_raise_stmt, 3150), (sym_try_stmt, 3150), (sym_ERR_clause_outside_try, 3150),
     (sym_begin_path_expression, 2943), (sym_invocation, 2934), (sym_any_invocation, 2935),
     (sym_this_invocation, 2641), (sym_super_invocation, 2641), (sym_super_body_invocation, 2935),
     (sym_path_expression, 2627), (sym_field_expression, 2373), (sym_index_expression, 2373),
     (sym_ladder_diagram, 7970), (sym_fb_diagram, 7970),
     (aux_sym_ERR_fb_variables_after_method_repeat1, 358), (aux_sym_func_decl_repeat1, 7194),
     (aux_sym_func_decl_repeat2, 245), (aux_sym_fb_decl_repeat1, 2940),
     (aux_sym_fb_decl_repeat2, 154), (aux_sym_fb_decl_repeat3, 361), (aux_sym_SFC_repeat1, 7612),
     (aux_sym_stmt_list_repeat1, 2024), (aux_sym_ladder_diagram_repeat1, 8009),
     (aux_sym_fb_diagram_repeat1, 8013), (sym_identifier, 298),
     (aux_sym_ERR_implements_before_extends_token1, 412),
     (aux_sym_ERR_extends_multiple_times_token1, 382),
     (aux_sym_ERR_unexpected_this_in_path_token1, 304),
     (aux_sym_ERR_unexpected_super_in_path_token1, 306), (sym_line_comment, 3),
     (anon_sym_LBRACE, 308), (aux_sym_test_pragma_token1, 9), (aux_sym_once_pragma_token1, 11),
     (aux_sym_must_call_pragma_token1, 13), (aux_sym_export_pragma_token1, 15),
     (anon_sym_SEMI, 310), (anon_sym_PERCENT, 312), (aux_sym_input_decls_token1, 314),
     (aux_sym_output_decls_token1, 316), (aux_sym_in_out_decls_token1, 318),
     (aux_sym_var_decls_token1, 320), (aux_sym_temp_var_decls_token1, 322),
     (aux_sym_external_var_decls_token1, 324), (aux_sym_global_var_decls_token1, 326),
     (aux_sym_fb_decl_token4, 414), (aux_sym_method_decl_token1, 330),
     (aux_sym_prog_access_decls_token1, 332), (aux_sym_initial_step_token1, 334),
     (aux_sym_config_init_token1, 336), (aux_sym_using_directive_token1, 338),
     (aux_sym__stmt_token1, 340), (aux_sym__stmt_token2, 340), (aux_sym__stmt_token3, 340),
     (aux_sym_if_stmt_token1, 342), (aux_sym_case_stmt_token1, 344), (aux_sym_for_stmt_token1, 346),
     (aux_sym_while_stmt_token1, 348), (aux_sym_repeat_stmt_token1, 350),
     (aux_sym_raise_stmt_token1, 352), (aux_sym_try_stmt_token1, 354),
     (aux_sym_try_stmt_token2, 356), (aux_sym_catch_clause_token1, 356),
     (aux_sym_finally_clause_token1, 356), (sym_ld_rung, 358), (sym_fbd_network, 360),
     (sym_c_style_comment, 3), (sym_pascal_style_comment, 3), (sym_pragma, 3)]"

lemma ts_parse_row_101_scan: "row_scan tokens_63_2 0 ts_parse_row_101 = Some (Suc (Suc (Suc (Suc 0))))"
  unfolding ts_parse_row_101_def by simp

text \<open>Lines 65743 to 65864.\<close>

definition ts_parse_row_102 :: parse_row where
  "ts_parse_row_102 =
    [(sym_ERR_implements_multiple_times, 160), (sym_ERR_extends_multiple_times, 2940),
     (sym_ERR_assign_func_call, 7530), (sym_ERR_unexpected_this_in_path, 2372),
     (sym_ERR_unexpected_super_in_path, 2372), (sym_ERR_fb_variables_after_method, 1887),
     (sym_ERR_var_access_not_allowed, 3160), (sym_ERR_var_config_not_allowed, 3160),
     (sym_ERR_var_global_not_allowed, 3160), (sym_ERR_method_decl_in_body, 3150),
     (sym_extern_pragma, 7490), (sym_wasm_pragma, 3150), (sym_warn_pragma, 7490),
     (sym_allow_pragma, 3140), (sym_test_pragma, 7490), (sym_once_pragma, 7490),
     (sym_must_call_pragma, 7490), (sym_export_pragma, 7490), (sym_pou_pragma, 7194),
     (sym_direct_variable, 7675), (sym_deref_expression, 2373), (sym_variable, 7599),
     (sym_var_access, 2373), (sym_in_out_decls, 3160), (sym_var_decls, 3160),
     (sym_retain_var_decls, 3160), (sym_temp_var_decls, 3160), (sym_external_var_decls, 3160),
     (sym_global_var_decls, 2947), (sym_loc_partly_var_decl, 3160), (sym__fb_variables, 418),
     (sym_fb_input_decls, 3160), (sym_fb_output_decls, 3160), (sym_no_retain_var_decls, 3160),
     (sym_fb_body, 8226), (sym_method_decl, 421), (sym_prog_access_decls, 3043), (sym_SFC, 7970),
     (sym_SFC_network, 7612), (sym_initial_step, 7439), (sym_config_init, 3047),
     (sym_using_directive, 283), (sym_variable_access, 7530), (sym_func_call, 2961),
     (sym_stmt_list, 7970), (sym__stmt, 2024), (sym_assign, 3150), (sym_if_stmt, 3150),
     (sym_case_stmt, 3150), (sym_for_stmt, 3150), (sym_while_stmt, 3150), (sym_repeat_stmt, 3150),
     (sym_raise_stmt, 3150), (sym_try_stmt, 3150), (sym_ERR_clause_outside_try, 3150),
     (sym_begin_path_expression, 2943), (sym_invocation, 2934), (sym_any_invocation, 2935),
     (sym_this_invocation, 2641), (sym_super_invocation, 2641), (sym_super_body_invocation, 2935),
     (sym_path_expression, 2627), (sym_field_expression, 2373), (sym_index_expression, 2373),
     (sym_ladder_diagram, 7970), (sym_fb_diagram, 7970),
     (aux_sym_ERR_fb_variables_after_method_repeat1, 418), (aux_sym_func_decl_repeat1, 7194),
     (aux_sym_func_decl_repeat2, 283), (aux_sym_fb_decl_repeat1, 2940),
     (aux_sym_fb_decl_repeat2, 160), (aux_sym_fb_decl_repeat3, 421), (aux_sym_SFC_repeat1, 7612),
     (aux_sym_stmt_list_repeat1, 2024), (aux_sym_ladder_diagram_repeat1, 8009),
     (aux_sym_fb_diagram_repeat1, 8013), (sym_identifier, 298),
     (aux_sym_ERR_implements_before_extends_token1, 416),
     (aux_sym_ERR_extends_multiple_times_token1, 382),
     (aux_sym_ERR_unexpected_this_in_path_token1, 304),
     (aux_sym_ERR_unexpected_super_in_path_token1, 306), (sym_line_comment, 3),
     (anon_sym_LBRACE, 308), (aux_sym_test_pragma_token1, 9), (aux_sym_once_pragma_token1, 11),
     (aux_sym_must_call_pragma_token1, 13), (aux_sym_export_pragma_token1, 15),
     (anon_sym_SEMI, 310), (anon_sym_PERCENT, 312), (aux_sym_input_decls_token1, 314),
     (aux_sym_output_decls_token1, 316), (aux_sym_in_out_decls_token1, 318),
     (aux_sym_var_decls_token1, 320), (aux_sym_temp_var_decls_token1, 322),
     (aux_sym_external_var_decls_token1, 324), (aux_sym_global_var_decls_token1, 326),
     (aux_sym_fb_decl_token4, 418), (aux_sym_method_decl_token1, 330),
     (aux_sym_prog_access_decls_token1, 332), (aux_sym_initial_step_token1, 334),
     (aux_sym_config_init_token1, 336), (aux_sym_using_directive_token1, 338),
     (aux_sym__stmt_token1, 340), (aux_sym__stmt_token2, 340), (aux_sym__stmt_token3, 340),
     (aux_sym_if_stmt_token1, 342), (aux_sym_case_stmt_token1, 344), (aux_sym_for_stmt_token1, 346),
     (aux_sym_while_stmt_token1, 348), (aux_sym_repeat_stmt_token1, 350),
     (aux_sym_raise_stmt_token1, 352), (aux_sym_try_stmt_token1, 354),
     (aux_sym_try_stmt_token2, 356), (aux_sym_catch_clause_token1, 356),
     (aux_sym_finally_clause_token1, 356), (sym_ld_rung, 358), (sym_fbd_network, 360),
     (sym_c_style_comment, 3), (sym_pascal_style_comment, 3), (sym_pragma, 3)]"

lemma ts_parse_row_102_scan: "row_scan tokens_63_2 0 ts_parse_row_102 = Some (Suc (Suc (Suc (Suc 0))))"
  unfolding ts_parse_row_102_def by simp

text \<open>Lines 65865 to 65986.\<close>

definition ts_parse_row_103 :: parse_row where
  "ts_parse_row_103 =
    [(sym_ERR_implements_multiple_times, 163), (sym_ERR_extends_multiple_times, 107),
     (sym_ERR_assign_func_call, 7530), (sym_ERR_unexpected_this_in_path, 2372),
     (sym_ERR_unexpected_super_in_path, 2372), (sym_ERR_fb_variables_after_method, 1895),
     (sym_ERR_var_access_not_allowed, 3160), (sym_ERR_var_config_not_allowed, 3160),
     (sym_ERR_var_global_not_allowed, 3160), (sym_ERR_method_decl_in_body, 3150),
     (sym_extern_pragma, 7490), (sym_wasm_pragma, 3150), (sym_warn_pragma, 7490),
     (sym_allow_pragma, 3140), (sym_test_pragma, 7490), (sym_once_pragma, 7490),
     (sym_must_call_pragma, 7490), (sym_export_pragma, 7490), (sym_pou_pragma, 7194),
     (sym_direct_variable, 7675), (sym_deref_expression, 2373), (sym_variable, 7599),
     (sym_var_access, 2373), (sym_in_out_decls, 3160), (sym_var_decls, 3160),
     (sym_retain_var_decls, 3160), (sym_temp_var_decls, 3160), (sym_external_var_decls, 3160),
     (sym_global_var_decls, 2947), (sym_loc_partly_var_decl, 3160), (sym__fb_variables, 426),
     (sym_fb_input_decls, 3160), (sym_fb_output_decls, 3160), (sym_no_retain_var_decls, 3160),
     (sym_fb_body, 8445), (sym_method_decl, 430), (sym_prog_access_decls, 3043), (sym_SFC, 7970),
     (sym_SFC_network, 7612), (sym_initial_step, 7439), (sym_config_init, 3047),
     (sym_using_directive, 291), (sym_variable_access, 7530), (sym_func_call, 2961),
     (sym_stmt_list, 7970), (sym__stmt, 2024), (sym_assign, 3150), (sym_if_stmt, 3150),
     (sym_case_stmt, 3150), (sym_for_stmt, 3150), (sym_while_stmt, 3150), (sym_repeat_stmt, 3150),
     (sym_raise_stmt, 3150), (sym_try_stmt, 3150), (sym_ERR_clause_outside_try, 3150),
     (sym_begin_path_expression, 2943), (sym_invocation, 2934), (sym_any_invocation, 2935),
     (sym_this_invocation, 2641), (sym_super_invocation, 2641), (sym_super_body_invocation, 2935),
     (sym_path_expression, 2627), (sym_field_expression, 2373), (sym_index_expression, 2373),
     (sym_ladder_diagram, 7970), (sym_fb_diagram, 7970),
     (aux_sym_ERR_fb_variables_after_method_repeat1, 426), (aux_sym_func_decl_repeat1, 7194),
     (aux_sym_func_decl_repeat2, 291), (aux_sym_fb_decl_repeat1, 107),
     (aux_sym_fb_decl_repeat2, 163), (aux_sym_fb_decl_repeat3, 430), (aux_sym_SFC_repeat1, 7612),
     (aux_sym_stmt_list_repeat1, 2024), (aux_sym_ladder_diagram_repeat1, 8009),
     (aux_sym_fb_diagram_repeat1, 8013), (sym_identifier, 298),
     (aux_sym_ERR_implements_before_extends_token1, 420),
     (aux_sym_ERR_extends_multiple_times_token1, 382),
     (aux_sym_ERR_unexpected_this_in_path_token1, 304),
     (aux_sym_ERR_unexpected_super_in_path_token1, 306), (sym_line_comment, 3),
     (anon_sym_LBRACE, 308), (aux_sym_test_pragma_token1, 9), (aux_sym_once_pragma_token1, 11),
     (aux_sym_must_call_pragma_token1, 13), (aux_sym_export_pragma_token1, 15),
     (anon_sym_SEMI, 310), (anon_sym_PERCENT, 312), (aux_sym_input_decls_token1, 314),
     (aux_sym_output_decls_token1, 316), (aux_sym_in_out_decls_token1, 318),
     (aux_sym_var_decls_token1, 320), (aux_sym_temp_var_decls_token1, 322),
     (aux_sym_external_var_decls_token1, 324), (aux_sym_global_var_decls_token1, 326),
     (aux_sym_fb_decl_token4, 422), (aux_sym_method_decl_token1, 330),
     (aux_sym_prog_access_decls_token1, 332), (aux_sym_initial_step_token1, 334),
     (aux_sym_config_init_token1, 336), (aux_sym_using_directive_token1, 338),
     (aux_sym__stmt_token1, 340), (aux_sym__stmt_token2, 340), (aux_sym__stmt_token3, 340),
     (aux_sym_if_stmt_token1, 342), (aux_sym_case_stmt_token1, 344), (aux_sym_for_stmt_token1, 346),
     (aux_sym_while_stmt_token1, 348), (aux_sym_repeat_stmt_token1, 350),
     (aux_sym_raise_stmt_token1, 352), (aux_sym_try_stmt_token1, 354),
     (aux_sym_try_stmt_token2, 356), (aux_sym_catch_clause_token1, 356),
     (aux_sym_finally_clause_token1, 356), (sym_ld_rung, 358), (sym_fbd_network, 360),
     (sym_c_style_comment, 3), (sym_pascal_style_comment, 3), (sym_pragma, 3)]"

lemma ts_parse_row_103_scan: "row_scan tokens_63_2 0 ts_parse_row_103 = Some (Suc (Suc (Suc (Suc 0))))"
  unfolding ts_parse_row_103_def by simp

text \<open>Lines 65987 to 66108.\<close>

definition ts_parse_row_104 :: parse_row where
  "ts_parse_row_104 =
    [(sym_ERR_implements_multiple_times, 196), (sym_ERR_extends_multiple_times, 2940),
     (sym_ERR_assign_func_call, 7530), (sym_ERR_unexpected_this_in_path, 2372),
     (sym_ERR_unexpected_super_in_path, 2372), (sym_ERR_fb_variables_after_method, 1967),
     (sym_ERR_var_access_not_allowed, 3160), (sym_ERR_var_config_not_allowed, 3160),
     (sym_ERR_var_global_not_allowed, 3160), (sym_ERR_method_decl_in_body, 3150),
     (sym_extern_pragma, 7490), (sym_wasm_pragma, 3150), (sym_warn_pragma, 7490),
     (sym_allow_pragma, 3140), (sym_test_pragma, 7490), (sym_once_pragma, 7490),
     (sym_must_call_pragma, 7490), (sym_export_pragma, 7490), (sym_pou_pragma, 7194),
     (sym_direct_variable, 7675), (sym_deref_expression, 2373), (sym_variable, 7599),
     (sym_var_access, 2373), (sym_in_out_decls, 3160), (sym_var_decls, 3160),
     (sym_retain_var_decls, 3160), (sym_temp_var_decls, 3160), (sym_external_var_decls, 3160),
     (sym_global_var_decls, 2947), (sym_loc_partly_var_decl, 3160), (sym__fb_variables, 858),
     (sym_fb_input_decls, 3160), (sym_fb_output_decls, 3160), (sym_no_retain_var_decls, 3160),
     (sym_fb_body, 8677), (sym_method_decl, 311), (sym_prog_access_decls, 3043), (sym_SFC, 7970),
     (sym_SFC_network, 7612), (sym_initial_step, 7439), (sym_config_init, 3047),
     (sym_using_directive, 282), (sym_variable_access, 7530), (sym_func_call, 2961),
     (sym_stmt_list, 7970), (sym__stmt, 2024), (sym_assign, 3150), (sym_if_stmt, 3150),
     (sym_case_stmt, 3150), (sym_for_stmt, 3150), (sym_while_stmt, 3150), (sym_repeat_stmt, 3150),
     (sym_raise_stmt, 3150), (sym_try_stmt, 3150), (sym_ERR_clause_outside_try, 3150),
     (sym_begin_path_expression, 2943), (sym_invocation, 2934), (sym_any_invocation, 2935),
     (sym_this_invocation, 2641), (sym_super_invocation, 2641), (sym_super_body_invocation, 2935),
     (sym_path_expression, 2627), (sym_field_expression, 2373), (sym_index_expression, 2373),
     (sym_ladder_diagram, 7970), (sym_fb_diagram, 7970),
     (aux_sym_ERR_fb_variables_after_method_repeat1, 858), (aux_sym_func_decl_repeat1, 7194),
     (aux_sym_func_decl_repeat2, 282), (aux_sym_fb_decl_repeat1, 2940),
     (aux_sym_fb_decl_repeat2, 196), (aux_sym_fb_decl_repeat3, 311), (aux_sym_SFC_repeat1, 7612),
     (aux_sym_stmt_list_repeat1, 2024), (aux_sym_ladder_diagram_repeat1, 8009),
     (aux_sym_fb_diagram_repeat1, 8013), (sym_identifier, 298),
     (aux_sym_ERR_implements_before_extends_token1, 398),
     (aux_sym_ERR_extends_multiple_times_token1, 382),
     (aux_sym_ERR_unexpected_this_in_path_token1, 304),
     (aux_sym_ERR_unexpected_super_in_path_token1, 306), (sym_line_comment, 3),
     (anon_sym_LBRACE, 308), (aux_sym_test_pragma_token1, 9), (aux_sym_once_pragma_token1, 11),
     (aux_sym_must_call_pragma_token1, 13), (aux_sym_export_pragma_token1, 15),
     (anon_sym_SEMI, 310), (anon_sym_PERCENT, 312), (aux_sym_input_decls_token1, 314),
     (aux_sym_output_decls_token1, 316), (aux_sym_in_out_decls_token1, 318),
     (aux_sym_var_decls_token1, 320), (aux_sym_temp_var_decls_token1, 322),
     (aux_sym_external_var_decls_token1, 324), (aux_sym_global_var_decls_token1, 326),
     (aux_sym_fb_decl_token4, 402), (aux_sym_method_decl_token1, 330),
     (aux_sym_prog_access_decls_token1, 332), (aux_sym_initial_step_token1, 334),
     (aux_sym_config_init_token1, 336), (aux_sym_using_directive_token1, 338),
     (aux_sym__stmt_token1, 340), (aux_sym__stmt_token2, 340), (aux_sym__stmt_token3, 340),
     (aux_sym_if_stmt_token1, 342), (aux_sym_case_stmt_token1, 344), (aux_sym_for_stmt_token1, 346),
     (aux_sym_while_stmt_token1, 348), (aux_sym_repeat_stmt_token1, 350),
     (aux_sym_raise_stmt_token1, 352), (aux_sym_try_stmt_token1, 354),
     (aux_sym_try_stmt_token2, 356), (aux_sym_catch_clause_token1, 356),
     (aux_sym_finally_clause_token1, 356), (sym_ld_rung, 358), (sym_fbd_network, 360),
     (sym_c_style_comment, 3), (sym_pascal_style_comment, 3), (sym_pragma, 3)]"

lemma ts_parse_row_104_scan: "row_scan tokens_63_2 0 ts_parse_row_104 = Some (Suc (Suc (Suc (Suc 0))))"
  unfolding ts_parse_row_104_def by simp

text \<open>Lines 66109 to 66230.\<close>

definition ts_parse_row_105 :: parse_row where
  "ts_parse_row_105 =
    [(sym_ERR_implements_multiple_times, 132), (sym_ERR_extends_multiple_times, 101),
     (sym_ERR_assign_func_call, 7530), (sym_ERR_unexpected_this_in_path, 2372),
     (sym_ERR_unexpected_super_in_path, 2372), (sym_ERR_fb_variables_after_method, 1981),
     (sym_ERR_var_access_not_allowed, 3160), (sym_ERR_var_config_not_allowed, 3160),
     (sym_ERR_var_global_not_allowed, 3160), (sym_ERR_method_decl_in_body, 3150),
     (sym_extern_pragma, 7490), (sym_wasm_pragma, 3150), (sym_warn_pragma, 7490),
     (sym_allow_pragma, 3140), (sym_test_pragma, 7490), (sym_once_pragma, 7490),
     (sym_must_call_pragma, 7490), (sym_export_pragma, 7490), (sym_pou_pragma, 7194),
     (sym_direct_variable, 7675), (sym_deref_expression, 2373), (sym_variable, 7599),
     (sym_var_access, 2373), (sym_in_out_decls, 3160), (sym_var_decls, 3160),
     (sym_retain_var_decls, 3160), (sym_temp_var_decls, 3160), (sym_external_var_decls, 3160),
     (sym_global_var_decls, 2947), (sym_loc_partly_var_decl, 3160), (sym__fb_variables, 535),
     (sym_fb_input_decls, 3160), (sym_fb_output_decls, 3160), (sym_no_retain_var_decls, 3160),
     (sym_fb_body, 9331), (sym_method_decl, 555), (sym_prog_access_decls, 3043), (sym_SFC, 7970),
     (sym_SFC_network, 7612), (sym_initial_step, 7439), (sym_config_init, 3047),
     (sym_using_directive, 272), (sym_variable_access, 7530), (sym_func_call, 2961),
     (sym_stmt_list, 7970), (sym__stmt, 2024), (sym_assign, 3150), (sym_if_stmt, 3150),
     (sym_case_stmt, 3150), (sym_for_stmt, 3150), (sym_while_stmt, 3150), (sym_repeat_stmt, 3150),
     (sym_raise_stmt, 3150), (sym_try_stmt, 3150), (sym_ERR_clause_outside_try, 3150),
     (sym_begin_path_expression, 2943), (sym_invocation, 2934), (sym_any_invocation, 2935),
     (sym_this_invocation, 2641), (sym_super_invocation, 2641), (sym_super_body_invocation, 2935),
     (sym_path_expression, 2627), (sym_field_expression, 2373), (sym_index_expression, 2373),
     (sym_ladder_diagram, 7970), (sym_fb_diagram, 7970),
     (aux_sym_ERR_fb_variables_after_method_repeat1, 535), (aux_sym_func_decl_repeat1, 7194),
     (aux_sym_func_decl_repeat2, 272), (aux_sym_fb_decl_repeat1, 101),
     (aux_sym_fb_decl_repeat2, 132), (aux_sym_fb_decl_repeat3, 555), (aux_sym_SFC_repeat1, 7612),
     (aux_sym_stmt_list_repeat1, 2024), (aux_sym_ladder_diagram_repeat1, 8009),
     (aux_sym_fb_diagram_repeat1, 8013), (sym_identifier, 298),
     (aux_sym_ERR_implements_before_extends_token1, 424),
     (aux_sym_ERR_extends_multiple_times_token1, 382),
     (aux_sym_ERR_unexpected_this_in_path_token1, 304),
     (aux_sym_ERR_unexpected_super_in_path_token1, 306), (sym_line_comment, 3),
     (anon_sym_LBRACE, 308), (aux_sym_test_pragma_token1, 9), (aux_sym_once_pragma_token1, 11),
     (aux_sym_must_call_pragma_token1, 13), (aux_sym_export_pragma_token1, 15),
     (anon_sym_SEMI, 310), (anon_sym_PERCENT, 312), (aux_sym_input_decls_token1, 314),
     (aux_sym_output_decls_token1, 316), (aux_sym_in_out_decls_token1, 318),
     (aux_sym_var_decls_token1, 320), (aux_sym_temp_var_decls_token1, 322),
     (aux_sym_external_var_decls_token1, 324), (aux_sym_global_var_decls_token1, 326),
     (aux_sym_fb_decl_token4, 426), (aux_sym_method_decl_token1, 330),
     (aux_sym_prog_access_decls_token1, 332), (aux_sym_initial_step_token1, 334),
     (aux_sym_config_init_token1, 336), (aux_sym_using_directive_token1, 338),
     (aux_sym__stmt_token1, 340), (aux_sym__stmt_token2, 340), (aux_sym__stmt_token3, 340),
     (aux_sym_if_stmt_token1, 342), (aux_sym_case_stmt_token1, 344), (aux_sym_for_stmt_token1, 346),
     (aux_sym_while_stmt_token1, 348), (aux_sym_repeat_stmt_token1, 350),
     (aux_sym_raise_stmt_token1, 352), (aux_sym_try_stmt_token1, 354),
     (aux_sym_try_stmt_token2, 356), (aux_sym_catch_clause_token1, 356),
     (aux_sym_finally_clause_token1, 356), (sym_ld_rung, 358), (sym_fbd_network, 360),
     (sym_c_style_comment, 3), (sym_pascal_style_comment, 3), (sym_pragma, 3)]"

lemma ts_parse_row_105_scan: "row_scan tokens_63_2 0 ts_parse_row_105 = Some (Suc (Suc (Suc (Suc 0))))"
  unfolding ts_parse_row_105_def by simp

text \<open>Lines 66231 to 66352.\<close>

definition ts_parse_row_106 :: parse_row where
  "ts_parse_row_106 =
    [(sym_ERR_implements_multiple_times, 140), (sym_ERR_extends_multiple_times, 102),
     (sym_ERR_assign_func_call, 7530), (sym_ERR_unexpected_this_in_path, 2372),
     (sym_ERR_unexpected_super_in_path, 2372), (sym_ERR_fb_variables_after_method, 1370),
     (sym_ERR_var_access_not_allowed, 3160), (sym_ERR_var_config_not_allowed, 3160),
     (sym_ERR_var_global_not_allowed, 3160), (sym_ERR_method_decl_in_body, 3150),
     (sym_extern_pragma, 7490), (sym_wasm_pragma, 3150), (sym_warn_pragma, 7490),
     (sym_allow_pragma, 3140), (sym_test_pragma, 7490), (sym_once_pragma, 7490),
     (sym_must_call_pragma, 7490), (sym_export_pragma, 7490), (sym_pou_pragma, 7194),
     (sym_direct_variable, 7675), (sym_deref_expression, 2373), (sym_variable, 7599),
     (sym_var_access, 2373), (sym_in_out_decls, 3160), (sym_var_decls, 3160),
     (sym_retain_var_decls, 3160), (sym_temp_var_decls, 3160), (sym_external_var_decls, 3160),
     (sym_global_var_decls, 2947), (sym_loc_partly_var_decl, 3160), (sym__fb_variables, 856),
     (sym_fb_input_decls, 3160), (sym_fb_output_decls, 3160), (sym_no_retain_var_decls, 3160),
     (sym_fb_body, 9712), (sym_method_decl, 860), (sym_prog_access_decls, 3043), (sym_SFC, 7970),
     (sym_SFC_network, 7612), (sym_initial_step, 7439), (sym_config_init, 3047),
     (sym_using_directive, 236), (sym_variable_access, 7530), (sym_func_call, 2961),
     (sym_stmt_list, 7970), (sym__stmt, 2024), (sym_assign, 3150), (sym_if_stmt, 3150),
     (sym_case_stmt, 3150), (sym_for_stmt, 3150), (sym_while_stmt, 3150), (sym_repeat_stmt, 3150),
     (sym_raise_stmt, 3150), (sym_try_stmt, 3150), (sym_ERR_clause_outside_try, 3150),
     (sym_begin_path_expression, 2943), (sym_invocation, 2934), (sym_any_invocation, 2935),
     (sym_this_invocation, 2641), (sym_super_invocation, 2641), (sym_super_body_invocation, 2935),
     (sym_path_expression, 2627), (sym_field_expression, 2373), (sym_index_expression, 2373),
     (sym_ladder_diagram, 7970), (sym_fb_diagram, 7970),
     (aux_sym_ERR_fb_variables_after_method_repeat1, 856), (aux_sym_func_decl_repeat1, 7194),
     (aux_sym_func_decl_repeat2, 236), (aux_sym_fb_decl_repeat1, 102),
     (aux_sym_fb_decl_repeat2, 140), (aux_sym_fb_decl_repeat3, 860), (aux_sym_SFC_repeat1, 7612),
     (aux_sym_stmt_list_repeat1, 2024), (aux_sym_ladder_diagram_repeat1, 8009),
     (aux_sym_fb_diagram_repeat1, 8013), (sym_identifier, 298),
     (aux_sym_ERR_implements_before_extends_token1, 428),
     (aux_sym_ERR_extends_multiple_times_token1, 382),
     (aux_sym_ERR_unexpected_this_in_path_token1, 304),
     (aux_sym_ERR_unexpected_super_in_path_token1, 306), (sym_line_comment, 3),
     (anon_sym_LBRACE, 308), (aux_sym_test_pragma_token1, 9), (aux_sym_once_pragma_token1, 11),
     (aux_sym_must_call_pragma_token1, 13), (aux_sym_export_pragma_token1, 15),
     (anon_sym_SEMI, 310), (anon_sym_PERCENT, 312), (aux_sym_input_decls_token1, 314),
     (aux_sym_output_decls_token1, 316), (aux_sym_in_out_decls_token1, 318),
     (aux_sym_var_decls_token1, 320), (aux_sym_temp_var_decls_token1, 322),
     (aux_sym_external_var_decls_token1, 324), (aux_sym_global_var_decls_token1, 326),
     (aux_sym_fb_decl_token4, 430), (aux_sym_method_decl_token1, 330),
     (aux_sym_prog_access_decls_token1, 332), (aux_sym_initial_step_token1, 334),
     (aux_sym_config_init_token1, 336), (aux_sym_using_directive_token1, 338),
     (aux_sym__stmt_token1, 340), (aux_sym__stmt_token2, 340), (aux_sym__stmt_token3, 340),
     (aux_sym_if_stmt_token1, 342), (aux_sym_case_stmt_token1, 344), (aux_sym_for_stmt_token1, 346),
     (aux_sym_while_stmt_token1, 348), (aux_sym_repeat_stmt_token1, 350),
     (aux_sym_raise_stmt_token1, 352), (aux_sym_try_stmt_token1, 354),
     (aux_sym_try_stmt_token2, 356), (aux_sym_catch_clause_token1, 356),
     (aux_sym_finally_clause_token1, 356), (sym_ld_rung, 358), (sym_fbd_network, 360),
     (sym_c_style_comment, 3), (sym_pascal_style_comment, 3), (sym_pragma, 3)]"

lemma ts_parse_row_106_scan: "row_scan tokens_63_2 0 ts_parse_row_106 = Some (Suc (Suc (Suc (Suc 0))))"
  unfolding ts_parse_row_106_def by simp

text \<open>Lines 66353 to 66474.\<close>

definition ts_parse_row_107 :: parse_row where
  "ts_parse_row_107 =
    [(sym_ERR_implements_multiple_times, 176), (sym_ERR_extends_multiple_times, 2940),
     (sym_ERR_assign_func_call, 7530), (sym_ERR_unexpected_this_in_path, 2372),
     (sym_ERR_unexpected_super_in_path, 2372), (sym_ERR_fb_variables_after_method, 1320),
     (sym_ERR_var_access_not_allowed, 3160), (sym_ERR_var_config_not_allowed, 3160),
     (sym_ERR_var_global_not_allowed, 3160), (sym_ERR_method_decl_in_body, 3150),
     (sym_extern_pragma, 7490), (sym_wasm_pragma, 3150), (sym_warn_pragma, 7490),
     (sym_allow_pragma, 3140), (sym_test_pragma, 7490), (sym_once_pragma, 7490),
     (sym_must_call_pragma, 7490), (sym_export_pragma, 7490), (sym_pou_pragma, 7194),
     (sym_direct_variable, 7675), (sym_deref_expression, 2373), (sym_variable, 7599),
     (sym_var_access, 2373), (sym_in_out_decls, 3160), (sym_var_decls, 3160),
     (sym_retain_var_decls, 3160), (sym_temp_var_decls, 3160), (sym_external_var_decls, 3160),
     (sym_global_var_decls, 2947), (sym_loc_partly_var_decl, 3160), (sym__fb_variables, 572),
     (sym_fb_input_decls, 3160), (sym_fb_output_decls, 3160), (sym_no_retain_var_decls, 3160),
     (sym_fb_body, 9825), (sym_method_decl, 575), (sym_prog_access_decls, 3043), (sym_SFC, 7970),
     (sym_SFC_network, 7612), (sym_initial_step, 7439), (sym_config_init, 3047),
     (sym_using_directive, 233), (sym_variable_access, 7530), (sym_func_call, 2961),
     (sym_stmt_list, 7970), (sym__stmt, 2024), (sym_assign, 3150), (sym_if_stmt, 3150),
     (sym_case_stmt, 3150), (sym_for_stmt, 3150), (sym_while_stmt, 3150), (sym_repeat_stmt, 3150),
     (sym_raise_stmt, 3150), (sym_try_stmt, 3150), (sym_ERR_clause_outside_try, 3150),
     (sym_begin_path_expression, 2943), (sym_invocation, 2934), (sym_any_invocation, 2935),
     (sym_this_invocation, 2641), (sym_super_invocation, 2641), (sym_super_body_invocation, 2935),
     (sym_path_expression, 2627), (sym_field_expression, 2373), (sym_index_expression, 2373),
     (sym_ladder_diagram, 7970), (sym_fb_diagram, 7970),
     (aux_sym_ERR_fb_variables_after_method_repeat1, 572), (aux_sym_func_decl_repeat1, 7194),
     (aux_sym_func_decl_repeat2, 233), (aux_sym_fb_decl_repeat1, 2940),
     (aux_sym_fb_decl_repeat2, 176), (aux_sym_fb_decl_repeat3, 575), (aux_sym_SFC_repeat1, 7612),
     (aux_sym_stmt_list_repeat1, 2024), (aux_sym_ladder_diagram_repeat1, 8009),
     (aux_sym_fb_diagram_repeat1, 8013), (sym_identifier, 298),
     (aux_sym_ERR_implements_before_extends_token1, 432),
     (aux_sym_ERR_extends_multiple_times_token1, 382),
     (aux_sym_ERR_unexpected_this_in_path_token1, 304),
     (aux_sym_ERR_unexpected_super_in_path_token1, 306), (sym_line_comment, 3),
     (anon_sym_LBRACE, 308), (aux_sym_test_pragma_token1, 9), (aux_sym_once_pragma_token1, 11),
     (aux_sym_must_call_pragma_token1, 13), (aux_sym_export_pragma_token1, 15),
     (anon_sym_SEMI, 310), (anon_sym_PERCENT, 312), (aux_sym_input_decls_token1, 314),
     (aux_sym_output_decls_token1, 316), (aux_sym_in_out_decls_token1, 318),
     (aux_sym_var_decls_token1, 320), (aux_sym_temp_var_decls_token1, 322),
     (aux_sym_external_var_decls_token1, 324), (aux_sym_global_var_decls_token1, 326),
     (aux_sym_fb_decl_token4, 434), (aux_sym_method_decl_token1, 330),
     (aux_sym_prog_access_decls_token1, 332), (aux_sym_initial_step_token1, 334),
     (aux_sym_config_init_token1, 336), (aux_sym_using_directive_token1, 338),
     (aux_sym__stmt_token1, 340), (aux_sym__stmt_token2, 340), (aux_sym__stmt_token3, 340),
     (aux_sym_if_stmt_token1, 342), (aux_sym_case_stmt_token1, 344), (aux_sym_for_stmt_token1, 346),
     (aux_sym_while_stmt_token1, 348), (aux_sym_repeat_stmt_token1, 350),
     (aux_sym_raise_stmt_token1, 352), (aux_sym_try_stmt_token1, 354),
     (aux_sym_try_stmt_token2, 356), (aux_sym_catch_clause_token1, 356),
     (aux_sym_finally_clause_token1, 356), (sym_ld_rung, 358), (sym_fbd_network, 360),
     (sym_c_style_comment, 3), (sym_pascal_style_comment, 3), (sym_pragma, 3)]"

lemma ts_parse_row_107_scan: "row_scan tokens_63_2 0 ts_parse_row_107 = Some (Suc (Suc (Suc (Suc 0))))"
  unfolding ts_parse_row_107_def by simp

text \<open>Lines 66475 to 66596.\<close>

definition ts_parse_row_108 :: parse_row where
  "ts_parse_row_108 =
    [(sym_ERR_implements_multiple_times, 199), (sym_ERR_extends_multiple_times, 100),
     (sym_ERR_assign_func_call, 7530), (sym_ERR_unexpected_this_in_path, 2372),
     (sym_ERR_unexpected_super_in_path, 2372), (sym_ERR_fb_variables_after_method, 1882),
     (sym_ERR_var_access_not_allowed, 3160), (sym_ERR_var_config_not_allowed, 3160),
     (sym_ERR_var_global_not_allowed, 3160), (sym_ERR_method_decl_in_body, 3150),
     (sym_extern_pragma, 7490), (sym_wasm_pragma, 3150), (sym_warn_pragma, 7490),
     (sym_allow_pragma, 3140), (sym_test_pragma, 7490), (sym_once_pragma, 7490),
     (sym_must_call_pragma, 7490), (sym_export_pragma, 7490), (sym_pou_pragma, 7194),
     (sym_direct_variable, 7675), (sym_deref_expression, 2373), (sym_variable, 7599),
     (sym_var_access, 2373), (sym_in_out_decls, 3160), (sym_var_decls, 3160),
     (sym_retain_var_decls, 3160), (sym_temp_var_decls, 3160), (sym_external_var_decls, 3160),
     (sym_global_var_decls, 2947), (sym_loc_partly_var_decl, 3160), (sym__fb_variables, 363),
     (sym_fb_input_decls, 3160), (sym_fb_output_decls, 3160), (sym_no_retain_var_decls, 3160),
     (sym_fb_body, 8787), (sym_method_decl, 868), (sym_prog_access_decls, 3043), (sym_SFC, 7970),
     (sym_SFC_network, 7612), (sym_initial_step, 7439), (sym_config_init, 3047),
     (sym_using_directive, 287), (sym_variable_access, 7530), (sym_func_call, 2961),
     (sym_stmt_list, 7970), (sym__stmt, 2024), (sym_assign, 3150), (sym_if_stmt, 3150),
     (sym_case_stmt, 3150), (sym_for_stmt, 3150), (sym_while_stmt, 3150), (sym_repeat_stmt, 3150),
     (sym_raise_stmt, 3150), (sym_try_stmt, 3150), (sym_ERR_clause_outside_try, 3150),
     (sym_begin_path_expression, 2943), (sym_invocation, 2934), (sym_any_invocation, 2935),
     (sym_this_invocation, 2641), (sym_super_invocation, 2641), (sym_super_body_invocation, 2935),
     (sym_path_expression, 2627), (sym_field_expression, 2373), (sym_index_expression, 2373),
     (sym_ladder_diagram, 7970), (sym_fb_diagram, 7970),
     (aux_sym_ERR_fb_variables_after_method_repeat1, 363), (aux_sym_func_decl_repeat1, 7194),
     (aux_sym_func_decl_repeat2, 287), (aux_sym_fb_decl_repeat1, 100),
     (aux_sym_fb_decl_repeat2, 199), (aux_sym_fb_decl_repeat3, 868), (aux_sym_SFC_repeat1, 7612),
     (aux_sym_stmt_list_repeat1, 2024), (aux_sym_ladder_diagram_repeat1, 8009),
     (aux_sym_fb_diagram_repeat1, 8013), (sym_identifier, 298),
     (aux_sym_ERR_implements_before_extends_token1, 436),
     (aux_sym_ERR_extends_multiple_times_token1, 438),
     (aux_sym_ERR_unexpected_this_in_path_token1, 304),
     (aux_sym_ERR_unexpected_super_in_path_token1, 306), (sym_line_comment, 3),
     (anon_sym_LBRACE, 308), (aux_sym_test_pragma_token1, 9), (aux_sym_once_pragma_token1, 11),
     (aux_sym_must_call_pragma_token1, 13), (aux_sym_export_pragma_token1, 15),
     (anon_sym_SEMI, 310), (anon_sym_PERCENT, 312), (aux_sym_input_decls_token1, 314),
     (aux_sym_output_decls_token1, 316), (aux_sym_in_out_decls_token1, 318),
     (aux_sym_var_decls_token1, 320), (aux_sym_temp_var_decls_token1, 322),
     (aux_sym_external_var_decls_token1, 324), (aux_sym_global_var_decls_token1, 326),
     (aux_sym_fb_decl_token4, 440), (aux_sym_method_decl_token1, 330),
     (aux_sym_prog_access_decls_token1, 332), (aux_sym_initial_step_token1, 334),
     (aux_sym_config_init_token1, 336), (aux_sym_using_directive_token1, 338),
     (aux_sym__stmt_token1, 340), (aux_sym__stmt_token2, 340), (aux_sym__stmt_token3, 340),
     (aux_sym_if_stmt_token1, 342), (aux_sym_case_stmt_token1, 344), (aux_sym_for_stmt_token1, 346),
     (aux_sym_while_stmt_token1, 348), (aux_sym_repeat_stmt_token1, 350),
     (aux_sym_raise_stmt_token1, 352), (aux_sym_try_stmt_token1, 354),
     (aux_sym_try_stmt_token2, 356), (aux_sym_catch_clause_token1, 356),
     (aux_sym_finally_clause_token1, 356), (sym_ld_rung, 358), (sym_fbd_network, 360),
     (sym_c_style_comment, 3), (sym_pascal_style_comment, 3), (sym_pragma, 3)]"

lemma ts_parse_row_108_scan: "row_scan tokens_63_2 0 ts_parse_row_108 = Some (Suc (Suc (Suc (Suc 0))))"
  unfolding ts_parse_row_108_def by simp

text \<open>Lines 66597 to 66718.\<close>

definition ts_parse_row_109 :: parse_row where
  "ts_parse_row_109 =
    [(sym_ERR_implements_multiple_times, 146), (sym_ERR_extends_multiple_times, 2940),
     (sym_ERR_assign_func_call, 7530), (sym_ERR_unexpected_this_in_path, 2372),
     (sym_ERR_unexpected_super_in_path, 2372), (sym_ERR_fb_variables_after_method, 1544),
     (sym_ERR_var_access_not_allowed, 3160), (sym_ERR_var_config_not_allowed, 3160),
     (sym_ERR_var_global_not_allowed, 3160), (sym_ERR_method_decl_in_body, 3150),
     (sym_extern_pragma, 7490), (sym_wasm_pragma, 3150), (sym_warn_pragma, 7490),
     (sym_allow_pragma, 3140), (sym_test_pragma, 7490), (sym_once_pragma, 7490),
     (sym_must_call_pragma, 7490), (sym_export_pragma, 7490), (sym_pou_pragma, 7194),
     (sym_direct_variable, 7675), (sym_deref_expression, 2373), (sym_variable, 7599),
     (sym_var_access, 2373), (sym_in_out_decls, 3160), (sym_var_decls, 3160),
     (sym_retain_var_decls, 3160), (sym_temp_var_decls, 3160), (sym_external_var_decls, 3160),
     (sym_global_var_decls, 2947), (sym_loc_partly_var_decl, 3160), (sym__fb_variables, 700),
     (sym_fb_input_decls, 3160), (sym_fb_output_decls, 3160), (sym_no_retain_var_decls, 3160),
     (sym_fb_body, 10348), (sym_method_decl, 778), (sym_prog_access_decls, 3043), (sym_SFC, 7970),
     (sym_SFC_network, 7612), (sym_initial_step, 7439), (sym_config_init, 3047),
     (sym_using_directive, 242), (sym_variable_access, 7530), (sym_func_call, 2961),
     (sym_stmt_list, 7970), (sym__stmt, 2024), (sym_assign, 3150), (sym_if_stmt, 3150),
     (sym_case_stmt, 3150), (sym_for_stmt, 3150), (sym_while_stmt, 3150), (sym_repeat_stmt, 3150),
     (sym_raise_stmt, 3150), (sym_try_stmt, 3150), (sym_ERR_clause_outside_try, 3150),
     (sym_begin_path_expression, 2943), (sym_invocation, 2934), (sym_any_invocation, 2935),
     (sym_this_invocation, 2641), (sym_super_invocation, 2641), (sym_super_body_invocation, 2935),
     (sym_path_expression, 2627), (sym_field_expression, 2373), (sym_index_expression, 2373),
     (sym_ladder_diagram, 7970), (sym_fb_diagram, 7970),
     (aux_sym_ERR_fb_variables_after_method_repeat1, 700), (aux_sym_func_decl_repeat1, 7194),
     (aux_sym_func_decl_repeat2, 242), (aux_sym_fb_decl_repeat1, 2940),
     (aux_sym_fb_decl_repeat2, 146), (aux_sym_fb_decl_repeat3, 778), (aux_sym_SFC_repeat1, 7612),
     (aux_sym_stmt_list_repeat1, 2024), (aux_sym_ladder_diagram_repeat1, 8009),
     (aux_sym_fb_diagram_repeat1, 8013), (sym_identifier, 298),
     (aux_sym_ERR_implements_before_extends_token1, 442),
     (aux_sym_ERR_extends_multiple_times_token1, 382),
     (aux_sym_ERR_unexpected_this_in_path_token1, 304),
     (aux_sym_ERR_unexpected_super_in_path_token1, 306), (sym_line_comment, 3),
     (anon_sym_LBRACE, 308), (aux_sym_test_pragma_token1, 9), (aux_sym_once_pragma_token1, 11),
     (aux_sym_must_call_pragma_token1, 13), (aux_sym_export_pragma_token1, 15),
     (anon_sym_SEMI, 310), (anon_sym_PERCENT, 312), (aux_sym_input_decls_token1, 314),
     (aux_sym_output_decls_token1, 316), (aux_sym_in_out_decls_token1, 318),
     (aux_sym_var_decls_token1, 320), (aux_sym_temp_var_decls_token1, 322),
     (aux_sym_external_var_decls_token1, 324), (aux_sym_global_var_decls_token1, 326),
     (aux_sym_fb_decl_token4, 444), (aux_sym_method_decl_token1, 330),
     (aux_sym_prog_access_decls_token1, 332), (aux_sym_initial_step_token1, 334),
     (aux_sym_config_init_token1, 336), (aux_sym_using_directive_token1, 338),
     (aux_sym__stmt_token1, 340), (aux_sym__stmt_token2, 340), (aux_sym__stmt_token3, 340),
     (aux_sym_if_stmt_token1, 342), (aux_sym_case_stmt_token1, 344), (aux_sym_for_stmt_token1, 346),
     (aux_sym_while_stmt_token1, 348), (aux_sym_repeat_stmt_token1, 350),
     (aux_sym_raise_stmt_token1, 352), (aux_sym_try_stmt_token1, 354),
     (aux_sym_try_stmt_token2, 356), (aux_sym_catch_clause_token1, 356),
     (aux_sym_finally_clause_token1, 356), (sym_ld_rung, 358), (sym_fbd_network, 360),
     (sym_c_style_comment, 3), (sym_pascal_style_comment, 3), (sym_pragma, 3)]"

lemma ts_parse_row_109_scan: "row_scan tokens_63_2 0 ts_parse_row_109 = Some (Suc (Suc (Suc (Suc 0))))"
  unfolding ts_parse_row_109_def by simp

text \<open>Lines 66719 to 66840.\<close>

definition ts_parse_row_110 :: parse_row where
  "ts_parse_row_110 =
    [(sym_ERR_implements_multiple_times, 142), (sym_ERR_extends_multiple_times, 2940),
     (sym_ERR_assign_func_call, 7530), (sym_ERR_unexpected_this_in_path, 2372),
     (sym_ERR_unexpected_super_in_path, 2372), (sym_ERR_fb_variables_after_method, 1383),
     (sym_ERR_var_access_not_allowed, 3160), (sym_ERR_var_config_not_allowed, 3160),
     (sym_ERR_var_global_not_allowed, 3160), (sym_ERR_method_decl_in_body, 3150),
     (sym_extern_pragma, 7490), (sym_wasm_pragma, 3150), (sym_warn_pragma, 7490),
     (sym_allow_pragma, 3140), (sym_test_pragma, 7490), (sym_once_pragma, 7490),
     (sym_must_call_pragma, 7490), (sym_export_pragma, 7490), (sym_pou_pragma, 7194),
     (sym_direct_variable, 7675), (sym_deref_expression, 2373), (sym_variable, 7599),
     (sym_var_access, 2373), (sym_in_out_decls, 3160), (sym_var_decls, 3160),
     (sym_retain_var_decls, 3160), (sym_temp_var_decls, 3160), (sym_external_var_decls, 3160),
     (sym_global_var_decls, 2947), (sym_loc_partly_var_decl, 3160), (sym__fb_variables, 866),
     (sym_fb_input_decls, 3160), (sym_fb_output_decls, 3160), (sym_no_retain_var_decls, 3160),
     (sym_fb_body, 9772), (sym_method_decl, 869), (sym_prog_access_decls, 3043), (sym_SFC, 7970),
     (sym_SFC_network, 7612), (sym_initial_step, 7439), (sym_config_init, 3047),
     (sym_using_directive, 270), (sym_variable_access, 7530), (sym_func_call, 2961),
     (sym_stmt_list, 7970), (sym__stmt, 2024), (sym_assign, 3150), (sym_if_stmt, 3150),
     (sym_case_stmt, 3150), (sym_for_stmt, 3150), (sym_while_stmt, 3150), (sym_repeat_stmt, 3150),
     (sym_raise_stmt, 3150), (sym_try_stmt, 3150), (sym_ERR_clause_outside_try, 3150),
     (sym_begin_path_expression, 2943), (sym_invocation, 2934), (sym_any_invocation, 2935),
     (sym_this_invocation, 2641), (sym_super_invocation, 2641), (sym_super_body_invocation, 2935),
     (sym_path_expression, 2627), (sym_field_expression, 2373), (sym_index_expression, 2373),
     (sym_ladder_diagram, 7970), (sym_fb_diagram, 7970),
     (aux_sym_ERR_fb_variables_after_method_repeat1, 866), (aux_sym_func_decl_repeat1, 7194),
     (aux_sym_func_decl_repeat2, 270), (aux_sym_fb_decl_repeat1, 2940),
     (aux_sym_fb_decl_repeat2, 142), (aux_sym_fb_decl_repeat3, 869), (aux_sym_SFC_repeat1, 7612),
     (aux_sym_stmt_list_repeat1, 2024), (aux_sym_ladder_diagram_repeat1, 8009),
     (aux_sym_fb_diagram_repeat1, 8013), (sym_identifier, 298),
     (aux_sym_ERR_implements_before_extends_token1, 446),
     (aux_sym_ERR_extends_multiple_times_token1, 382),
     (aux_sym_ERR_unexpected_this_in_path_token1, 304),
     (aux_sym_ERR_unexpected_super_in_path_token1, 306), (sym_line_comment, 3),
     (anon_sym_LBRACE, 308), (aux_sym_test_pragma_token1, 9), (aux_sym_once_pragma_token1, 11),
     (aux_sym_must_call_pragma_token1, 13), (aux_sym_export_pragma_token1, 15),
     (anon_sym_SEMI, 310), (anon_sym_PERCENT, 312), (aux_sym_input_decls_token1, 314),
     (aux_sym_output_decls_token1, 316), (aux_sym_in_out_decls_token1, 318),
     (aux_sym_var_decls_token1, 320), (aux_sym_temp_var_decls_token1, 322),
     (aux_sym_external_var_decls_token1, 324), (aux_sym_global_var_decls_token1, 326),
     (aux_sym_fb_decl_token4, 448), (aux_sym_method_decl_token1, 330),
     (aux_sym_prog_access_decls_token1, 332), (aux_sym_initial_step_token1, 334),
     (aux_sym_config_init_token1, 336), (aux_sym_using_directive_token1, 338),
     (aux_sym__stmt_token1, 340), (aux_sym__stmt_token2, 340), (aux_sym__stmt_token3, 340),
     (aux_sym_if_stmt_token1, 342), (aux_sym_case_stmt_token1, 344), (aux_sym_for_stmt_token1, 346),
     (aux_sym_while_stmt_token1, 348), (aux_sym_repeat_stmt_token1, 350),
     (aux_sym_raise_stmt_token1, 352), (aux_sym_try_stmt_token1, 354),
     (aux_sym_try_stmt_token2, 356), (aux_sym_catch_clause_token1, 356),
     (aux_sym_finally_clause_token1, 356), (sym_ld_rung, 358), (sym_fbd_network, 360),
     (sym_c_style_comment, 3), (sym_pascal_style_comment, 3), (sym_pragma, 3)]"

lemma ts_parse_row_110_scan: "row_scan tokens_63_2 0 ts_parse_row_110 = Some (Suc (Suc (Suc (Suc 0))))"
  unfolding ts_parse_row_110_def by simp

text \<open>Lines 66841 to 66962.\<close>

definition ts_parse_row_111 :: parse_row where
  "ts_parse_row_111 =
    [(sym_ERR_implements_multiple_times, 197), (sym_ERR_extends_multiple_times, 95),
     (sym_ERR_assign_func_call, 7530), (sym_ERR_unexpected_this_in_path, 2372),
     (sym_ERR_unexpected_super_in_path, 2372), (sym_ERR_fb_variables_after_method, 1590),
     (sym_ERR_var_access_not_allowed, 3160), (sym_ERR_var_config_not_allowed, 3160),
     (sym_ERR_var_global_not_allowed, 3160), (sym_ERR_method_decl_in_body, 3150),
     (sym_extern_pragma, 7490), (sym_wasm_pragma, 3150), (sym_warn_pragma, 7490),
     (sym_allow_pragma, 3140), (sym_test_pragma, 7490), (sym_once_pragma, 7490),
     (sym_must_call_pragma, 7490), (sym_export_pragma, 7490), (sym_pou_pragma, 7194),
     (sym_direct_variable, 7675), (sym_deref_expression, 2373), (sym_variable, 7599),
     (sym_var_access, 2373), (sym_in_out_decls, 3160), (sym_var_decls, 3160),
     (sym_retain_var_decls, 3160), (sym_temp_var_decls, 3160), (sym_external_var_decls, 3160),
     (sym_global_var_decls, 2947), (sym_loc_partly_var_decl, 3160), (sym__fb_variables, 857),
     (sym_fb_input_decls, 3160), (sym_fb_output_decls, 3160), (sym_no_retain_var_decls, 3160),
     (sym_fb_body, 9198), (sym_method_decl, 862), (sym_prog_access_decls, 3043), (sym_SFC, 7970),
     (sym_SFC_network, 7612), (sym_initial_step, 7439), (sym_config_init, 3047),
     (sym_using_directive, 281), (sym_variable_access, 7530), (sym_func_call, 2961),
     (sym_stmt_list, 7970), (sym__stmt, 2024), (sym_assign, 3150), (sym_if_stmt, 3150),
     (sym_case_stmt, 3150), (sym_for_stmt, 3150), (sym_while_stmt, 3150), (sym_repeat_stmt, 3150),
     (sym_raise_stmt, 3150), (sym_try_stmt, 3150), (sym_ERR_clause_outside_try, 3150),
     (sym_begin_path_expression, 2943), (sym_invocation, 2934), (sym_any_invocation, 2935),
     (sym_this_invocation, 2641), (sym_super_invocation, 2641), (sym_super_body_invocation, 2935),
     (sym_path_expression, 2627), (sym_field_expression, 2373), (sym_index_expression, 2373),
     (sym_ladder_diagram, 7970), (sym_fb_diagram, 7970),
     (aux_sym_ERR_fb_variables_after_method_repeat1, 857), (aux_sym_func_decl_repeat1, 7194),
     (aux_sym_func_decl_repeat2, 281), (aux_sym_fb_decl_repeat1, 95),
     (aux_sym_fb_decl_repeat2, 197), (aux_sym_fb_decl_repeat3, 862), (aux_sym_SFC_repeat1, 7612),
     (aux_sym_stmt_list_repeat1, 2024), (aux_sym_ladder_diagram_repeat1, 8009),
     (aux_sym_fb_diagram_repeat1, 8013), (sym_identifier, 298),
     (aux_sym_ERR_implements_before_extends_token1, 450),
     (aux_sym_ERR_extends_multiple_times_token1, 382),
     (aux_sym_ERR_unexpected_this_in_path_token1, 304),
     (aux_sym_ERR_unexpected_super_in_path_token1, 306), (sym_line_comment, 3),
     (anon_sym_LBRACE, 308), (aux_sym_test_pragma_token1, 9), (aux_sym_once_pragma_token1, 11),
     (aux_sym_must_call_pragma_token1, 13), (aux_sym_export_pragma_token1, 15),
     (anon_sym_SEMI, 310), (anon_sym_PERCENT, 312), (aux_sym_input_decls_token1, 314),
     (aux_sym_output_decls_token1, 316), (aux_sym_in_out_decls_token1, 318),
     (aux_sym_var_decls_token1, 320), (aux_sym_temp_var_decls_token1, 322),
     (aux_sym_external_var_decls_token1, 324), (aux_sym_global_var_decls_token1, 326),
     (aux_sym_fb_decl_token4, 452), (aux_sym_method_decl_token1, 330),
     (aux_sym_prog_access_decls_token1, 332), (aux_sym_initial_step_token1, 334),
     (aux_sym_config_init_token1, 336), (aux_sym_using_directive_token1, 338),
     (aux_sym__stmt_token1, 340), (aux_sym__stmt_token2, 340), (aux_sym__stmt_token3, 340),
     (aux_sym_if_stmt_token1, 342), (aux_sym_case_stmt_token1, 344), (aux_sym_for_stmt_token1, 346),
     (aux_sym_while_stmt_token1, 348), (aux_sym_repeat_stmt_token1, 350),
     (aux_sym_raise_stmt_token1, 352), (aux_sym_try_stmt_token1, 354),
     (aux_sym_try_stmt_token2, 356), (aux_sym_catch_clause_token1, 356),
     (aux_sym_finally_clause_token1, 356), (sym_ld_rung, 358), (sym_fbd_network, 360),
     (sym_c_style_comment, 3), (sym_pascal_style_comment, 3), (sym_pragma, 3)]"

lemma ts_parse_row_111_scan: "row_scan tokens_63_2 0 ts_parse_row_111 = Some (Suc (Suc (Suc (Suc 0))))"
  unfolding ts_parse_row_111_def by simp

text \<open>Lines 66963 to 67084.\<close>

definition ts_parse_row_112 :: parse_row where
  "ts_parse_row_112 =
    [(sym_ERR_implements_multiple_times, 149), (sym_ERR_extends_multiple_times, 110),
     (sym_ERR_assign_func_call, 7530), (sym_ERR_unexpected_this_in_path, 2372),
     (sym_ERR_unexpected_super_in_path, 2372), (sym_ERR_fb_variables_after_method, 1831),
     (sym_ERR_var_access_not_allowed, 3160), (sym_ERR_var_config_not_allowed, 3160),
     (sym_ERR_var_global_not_allowed, 3160), (sym_ERR_method_decl_in_body, 3150),
     (sym_extern_pragma, 7490), (sym_wasm_pragma, 3150), (sym_warn_pragma, 7490),
     (sym_allow_pragma, 3140), (sym_test_pragma, 7490), (sym_once_pragma, 7490),
     (sym_must_call_pragma, 7490), (sym_export_pragma, 7490), (sym_pou_pragma, 7194),
     (sym_direct_variable, 7675), (sym_deref_expression, 2373), (sym_variable, 7599),
     (sym_var_access, 2373), (sym_in_out_decls, 3160), (sym_var_decls, 3160),
     (sym_retain_var_decls, 3160), (sym_temp_var_decls, 3160), (sym_external_var_decls, 3160),
     (sym_global_var_decls, 2947), (sym_loc_partly_var_decl, 3160), (sym__fb_variables, 320),
     (sym_fb_input_decls, 3160), (sym_fb_output_decls, 3160), (sym_no_retain_var_decls, 3160),
     (sym_fb_body, 8249), (sym_method_decl, 329), (sym_prog_access_decls, 3043), (sym_SFC, 7970),
     (sym_SFC_network, 7612), (sym_initial_step, 7439), (sym_config_init, 3047),
     (sym_using_directive, 263), (sym_variable_access, 7530), (sym_func_call, 2961),
     (sym_stmt_list, 7970), (sym__stmt, 2024), (sym_assign, 3150), (sym_if_stmt, 3150),
     (sym_case_stmt, 3150), (sym_for_stmt, 3150), (sym_while_stmt, 3150), (sym_repeat_stmt, 3150),
     (sym_raise_stmt, 3150), (sym_try_stmt, 3150), (sym_ERR_clause_outside_try, 3150),
     (sym_begin_path_expression, 2943), (sym_invocation, 2934), (sym_any_invocation, 2935),
     (sym_this_invocation, 2641), (sym_super_invocation, 2641), (sym_super_body_invocation, 2935),
     (sym_path_expression, 2627), (sym_field_expression, 2373), (sym_index_expression, 2373),
     (sym_ladder_diagram, 7970), (sym_fb_diagram, 7970),
     (aux_sym_ERR_fb_variables_after_method_repeat1, 320), (aux_sym_func_decl_repeat1, 7194),
     (aux_sym_func_decl_repeat2, 263), (aux_sym_fb_decl_repeat1, 110),
     (aux_sym_fb_decl_repeat2, 149), (aux_sym_fb_decl_repeat3, 329), (aux_sym_SFC_repeat1, 7612),
     (aux_sym_stmt_list_repeat1, 2024), (aux_sym_ladder_diagram_repeat1, 8009),
     (aux_sym_fb_diagram_repeat1, 8013), (sym_identifier, 298),
     (aux_sym_ERR_implements_before_extends_token1, 454),
     (aux_sym_ERR_extends_multiple_times_token1, 456),
     (aux_sym_ERR_unexpected_this_in_path_token1, 304),
     (aux_sym_ERR_unexpected_super_in_path_token1, 306), (sym_line_comment, 3),
     (anon_sym_LBRACE, 308), (aux_sym_test_pragma_token1, 9), (aux_sym_once_pragma_token1, 11),
     (aux_sym_must_call_pragma_token1, 13), (aux_sym_export_pragma_token1, 15),
     (anon_sym_SEMI, 310), (anon_sym_PERCENT, 312), (aux_sym_input_decls_token1, 314),
     (aux_sym_output_decls_token1, 316), (aux_sym_in_out_decls_token1, 318),
     (aux_sym_var_decls_token1, 320), (aux_sym_temp_var_decls_token1, 322),
     (aux_sym_external_var_decls_token1, 324), (aux_sym_global_var_decls_token1, 326),
     (aux_sym_fb_decl_token4, 458), (aux_sym_method_decl_token1, 330),
     (aux_sym_prog_access_decls_token1, 332), (aux_sym_initial_step_token1, 334),
     (aux_sym_config_init_token1, 336), (aux_sym_using_directive_token1, 338),
     (aux_sym__stmt_token1, 340), (aux_sym__stmt_token2, 340), (aux_sym__stmt_token3, 340),
     (aux_sym_if_stmt_token1, 342), (aux_sym_case_stmt_token1, 344), (aux_sym_for_stmt_token1, 346),
     (aux_sym_while_stmt_token1, 348), (aux_sym_repeat_stmt_token1, 350),
     (aux_sym_raise_stmt_token1, 352), (aux_sym_try_stmt_token1, 354),
     (aux_sym_try_stmt_token2, 356), (aux_sym_catch_clause_token1, 356),
     (aux_sym_finally_clause_token1, 356), (sym_ld_rung, 358), (sym_fbd_network, 360),
     (sym_c_style_comment, 3), (sym_pascal_style_comment, 3), (sym_pragma, 3)]"

lemma ts_parse_row_112_scan: "row_scan tokens_63_2 0 ts_parse_row_112 = Some (Suc (Suc (Suc (Suc 0))))"
  unfolding ts_parse_row_112_def by simp

text \<open>Lines 67085 to 67206.\<close>

definition ts_parse_row_113 :: parse_row where
  "ts_parse_row_113 =
    [(sym_ERR_implements_multiple_times, 149), (sym_ERR_extends_multiple_times, 2940),
     (sym_ERR_assign_func_call, 7530), (sym_ERR_unexpected_this_in_path, 2372),
     (sym_ERR_unexpected_super_in_path, 2372), (sym_ERR_fb_variables_after_method, 1831),
     (sym_ERR_var_access_not_allowed, 3160), (sym_ERR_var_config_not_allowed, 3160),
     (sym_ERR_var_global_not_allowed, 3160), (sym_ERR_method_decl_in_body, 3150),
     (sym_extern_pragma, 7490), (sym_wasm_pragma, 3150), (sym_warn_pragma, 7490),
     (sym_allow_pragma, 3140), (sym_test_pragma, 7490), (sym_once_pragma, 7490),
     (sym_must_call_pragma, 7490), (sym_export_pragma, 7490), (sym_pou_pragma, 7194),
     (sym_direct_variable, 7675), (sym_deref_expression, 2373), (sym_variable, 7599),
     (sym_var_access, 2373), (sym_in_out_decls, 3160), (sym_var_decls, 3160),
     (sym_retain_var_decls, 3160), (sym_temp_var_decls, 3160), (sym_external_var_decls, 3160),
     (sym_global_var_decls, 2947), (sym_loc_partly_var_decl, 3160), (sym__fb_variables, 320),
     (sym_fb_input_decls, 3160), (sym_fb_output_decls, 3160), (sym_no_retain_var_decls, 3160),
     (sym_fb_body, 8249), (sym_method_decl, 329), (sym_prog_access_decls, 3043), (sym_SFC, 7970),
     (sym_SFC_network, 7612), (sym_initial_step, 7439), (sym_config_init, 3047),
     (sym_using_directive, 263), (sym_variable_access, 7530), (sym_func_call, 2961),
     (sym_stmt_list, 7970), (sym__stmt, 2024), (sym_assign, 3150), (sym_if_stmt, 3150),
     (sym_case_stmt, 3150), (sym_for_stmt, 3150), (sym_while_stmt, 3150), (sym_repeat_stmt, 3150),
     (sym_raise_stmt, 3150), (sym_try_stmt, 3150), (sym_ERR_clause_outside_try, 3150),
     (sym_begin_path_expression, 2943), (sym_invocation, 2934), (sym_any_invocation, 2935),
     (sym_this_invocation, 2641), (sym_super_invocation, 2641), (sym_super_body_invocation, 2935),
     (sym_path_expression, 2627), (sym_field_expression, 2373), (sym_index_expression, 2373),
     (sym_ladder_diagram, 7970), (sym_fb_diagram, 7970),
     (aux_sym_ERR_fb_variables_after_method_repeat1, 320), (aux_sym_func_decl_repeat1, 7194),
     (aux_sym_func_decl_repeat2, 263), (aux_sym_fb_decl_repeat1, 2940),
     (aux_sym_fb_decl_repeat2, 149), (aux_sym_fb_decl_repeat3, 329), (aux_sym_SFC_repeat1, 7612),
     (aux_sym_stmt_list_repeat1, 2024), (aux_sym_ladder_diagram_repeat1, 8009),
     (aux_sym_fb_diagram_repeat1, 8013), (sym_identifier, 298),
     (aux_sym_ERR_implements_before_extends_token1, 454),
     (aux_sym_ERR_extends_multiple_times_token1, 382),
     (aux_sym_ERR_unexpected_this_in_path_token1, 304),
     (aux_sym_ERR_unexpected_super_in_path_token1, 306), (sym_line_comment, 3),
     (anon_sym_LBRACE, 308), (aux_sym_test_pragma_token1, 9), (aux_sym_once_pragma_token1, 11),
     (aux_sym_must_call_pragma_token1, 13), (aux_sym_export_pragma_token1, 15),
     (anon_sym_SEMI, 310), (anon_sym_PERCENT, 312), (aux_sym_input_decls_token1, 314),
     (aux_sym_output_decls_token1, 316), (aux_sym_in_out_decls_token1, 318),
     (aux_sym_var_decls_token1, 320), (aux_sym_temp_var_decls_token1, 322),
     (aux_sym_external_var_decls_token1, 324), (aux_sym_global_var_decls_token1, 326),
     (aux_sym_fb_decl_token4, 458), (aux_sym_method_decl_token1, 330),
     (aux_sym_prog_access_decls_token1, 332), (aux_sym_initial_step_token1, 334),
     (aux_sym_config_init_token1, 336), (aux_sym_using_directive_token1, 338),
     (aux_sym__stmt_token1, 340), (aux_sym__stmt_token2, 340), (aux_sym__stmt_token3, 340),
     (aux_sym_if_stmt_token1, 342), (aux_sym_case_stmt_token1, 344), (aux_sym_for_stmt_token1, 346),
     (aux_sym_while_stmt_token1, 348), (aux_sym_repeat_stmt_token1, 350),
     (aux_sym_raise_stmt_token1, 352), (aux_sym_try_stmt_token1, 354),
     (aux_sym_try_stmt_token2, 356), (aux_sym_catch_clause_token1, 356),
     (aux_sym_finally_clause_token1, 356), (sym_ld_rung, 358), (sym_fbd_network, 360),
     (sym_c_style_comment, 3), (sym_pascal_style_comment, 3), (sym_pragma, 3)]"

lemma ts_parse_row_113_scan: "row_scan tokens_63_2 0 ts_parse_row_113 = Some (Suc (Suc (Suc (Suc 0))))"
  unfolding ts_parse_row_113_def by simp

text \<open>Lines 67207 to 67328.\<close>

definition ts_parse_row_114 :: parse_row where
  "ts_parse_row_114 =
    [(sym_ERR_implements_multiple_times, 194), (sym_ERR_extends_multiple_times, 2940),
     (sym_ERR_assign_func_call, 7530), (sym_ERR_unexpected_this_in_path, 2372),
     (sym_ERR_unexpected_super_in_path, 2372), (sym_ERR_fb_variables_after_method, 1888),
     (sym_ERR_var_access_not_allowed, 3160), (sym_ERR_var_config_not_allowed, 3160),
     (sym_ERR_var_global_not_allowed, 3160), (sym_ERR_method_decl_in_body, 3150),
     (sym_extern_pragma, 7490), (sym_wasm_pragma, 3150), (sym_warn_pragma, 7490),
     (sym_allow_pragma, 3140), (sym_test_pragma, 7490), (sym_once_pragma, 7490),
     (sym_must_call_pragma, 7490), (sym_export_pragma, 7490), (sym_pou_pragma, 7194),
     (sym_direct_variable, 7675), (sym_deref_expression, 2373), (sym_variable, 7599),
     (sym_var_access, 2373), (sym_in_out_decls, 3160), (sym_var_decls, 3160),
     (sym_retain_var_decls, 3160), (sym_temp_var_decls, 3160), (sym_external_var_decls, 3160),
     (sym_global_var_decls, 2947), (sym_loc_partly_var_decl, 3160), (sym__fb_variables, 394),
     (sym_fb_input_decls, 3160), (sym_fb_output_decls, 3160), (sym_no_retain_var_decls, 3160),
     (sym_fb_body, 8426), (sym_method_decl, 412), (sym_prog_access_decls, 3043), (sym_SFC, 7970),
     (sym_SFC_network, 7612), (sym_initial_step, 7439), (sym_config_init, 3047),
     (sym_using_directive, 278), (sym_variable_access, 7530), (sym_func_call, 2961),
     (sym_stmt_list, 7970), (sym__stmt, 2024), (sym_assign, 3150), (sym_if_stmt, 3150),
     (sym_case_stmt, 3150), (sym_for_stmt, 3150), (sym_while_stmt, 3150), (sym_repeat_stmt, 3150),
     (sym_raise_stmt, 3150), (sym_try_stmt, 3150), (sym_ERR_clause_outside_try, 3150),
     (sym_begin_path_expression, 2943), (sym_invocation, 2934), (sym_any_invocation, 2935),
     (sym_this_invocation, 2641), (sym_super_invocation, 2641), (sym_super_body_invocation, 2935),
     (sym_path_expression, 2627), (sym_field_expression, 2373), (sym_index_expression, 2373),
     (sym_ladder_diagram, 7970), (sym_fb_diagram, 7970),
     (aux_sym_ERR_fb_variables_after_method_repeat1, 394), (aux_sym_func_decl_repeat1, 7194),
     (aux_sym_func_decl_repeat2, 278), (aux_sym_fb_decl_repeat1, 2940),
     (aux_sym_fb_decl_repeat2, 194), (aux_sym_fb_decl_repeat3, 412), (aux_sym_SFC_repeat1, 7612),
     (aux_sym_stmt_list_repeat1, 2024), (aux_sym_ladder_diagram_repeat1, 8009),
     (aux_sym_fb_diagram_repeat1, 8013), (sym_identifier, 298),
     (aux_sym_ERR_implements_before_extends_token1, 460),
     (aux_sym_ERR_extends_multiple_times_token1, 382),
     (aux_sym_ERR_unexpected_this_in_path_token1, 304),
     (aux_sym_ERR_unexpected_super_in_path_token1, 306), (sym_line_comment, 3),
     (anon_sym_LBRACE, 308), (aux_sym_test_pragma_token1, 9), (aux_sym_once_pragma_token1, 11),
     (aux_sym_must_call_pragma_token1, 13), (aux_sym_export_pragma_token1, 15),
     (anon_sym_SEMI, 310), (anon_sym_PERCENT, 312), (aux_sym_input_decls_token1, 314),
     (aux_sym_output_decls_token1, 316), (aux_sym_in_out_decls_token1, 318),
     (aux_sym_var_decls_token1, 320), (aux_sym_temp_var_decls_token1, 322),
     (aux_sym_external_var_decls_token1, 324), (aux_sym_global_var_decls_token1, 326),
     (aux_sym_fb_decl_token4, 462), (aux_sym_method_decl_token1, 330),
     (aux_sym_prog_access_decls_token1, 332), (aux_sym_initial_step_token1, 334),
     (aux_sym_config_init_token1, 336), (aux_sym_using_directive_token1, 338),
     (aux_sym__stmt_token1, 340), (aux_sym__stmt_token2, 340), (aux_sym__stmt_token3, 340),
     (aux_sym_if_stmt_token1, 342), (aux_sym_case_stmt_token1, 344), (aux_sym_for_stmt_token1, 346),
     (aux_sym_while_stmt_token1, 348), (aux_sym_repeat_stmt_token1, 350),
     (aux_sym_raise_stmt_token1, 352), (aux_sym_try_stmt_token1, 354),
     (aux_sym_try_stmt_token2, 356), (aux_sym_catch_clause_token1, 356),
     (aux_sym_finally_clause_token1, 356), (sym_ld_rung, 358), (sym_fbd_network, 360),
     (sym_c_style_comment, 3), (sym_pascal_style_comment, 3), (sym_pragma, 3)]"

lemma ts_parse_row_114_scan: "row_scan tokens_63_2 0 ts_parse_row_114 = Some (Suc (Suc (Suc (Suc 0))))"
  unfolding ts_parse_row_114_def by simp

text \<open>Lines 67329 to 67450.\<close>

definition ts_parse_row_115 :: parse_row where
  "ts_parse_row_115 =
    [(sym_ERR_implements_multiple_times, 189), (sym_ERR_extends_multiple_times, 116),
     (sym_ERR_assign_func_call, 7530), (sym_ERR_unexpected_this_in_path, 2372),
     (sym_ERR_unexpected_super_in_path, 2372), (sym_ERR_fb_variables_after_method, 1870),
     (sym_ERR_var_access_not_allowed, 3160), (sym_ERR_var_config_not_allowed, 3160),
     (sym_ERR_var_global_not_allowed, 3160), (sym_ERR_method_decl_in_body, 3150),
     (sym_extern_pragma, 7490), (sym_wasm_pragma, 3150), (sym_warn_pragma, 7490),
     (sym_allow_pragma, 3140), (sym_test_pragma, 7490), (sym_once_pragma, 7490),
     (sym_must_call_pragma, 7490), (sym_export_pragma, 7490), (sym_pou_pragma, 7194),
     (sym_direct_variable, 7675), (sym_deref_expression, 2373), (sym_variable, 7599),
     (sym_var_access, 2373), (sym_in_out_decls, 3160), (sym_var_decls, 3160),
     (sym_retain_var_decls, 3160), (sym_temp_var_decls, 3160), (sym_external_var_decls, 3160),
     (sym_global_var_decls, 2947), (sym_loc_partly_var_decl, 3160), (sym__fb_variables, 354),
     (sym_fb_input_decls, 3160), (sym_fb_output_decls, 3160), (sym_no_retain_var_decls, 3160),
     (sym_fb_body, 8373), (sym_method_decl, 364), (sym_prog_access_decls, 3043), (sym_SFC, 7970),
     (sym_SFC_network, 7612), (sym_initial_step, 7439), (sym_config_init, 3047),
     (sym_using_directive, 301), (sym_variable_access, 7530), (sym_func_call, 2961),
     (sym_stmt_list, 7970), (sym__stmt, 2024), (sym_assign, 3150), (sym_if_stmt, 3150),
     (sym_case_stmt, 3150), (sym_for_stmt, 3150), (sym_while_stmt, 3150), (sym_repeat_stmt, 3150),
     (sym_raise_stmt, 3150), (sym_try_stmt, 3150), (sym_ERR_clause_outside_try, 3150),
     (sym_begin_path_expression, 2943), (sym_invocation, 2934), (sym_any_invocation, 2935),
     (sym_this_invocation, 2641), (sym_super_invocation, 2641), (sym_super_body_invocation, 2935),
     (sym_path_expression, 2627), (sym_field_expression, 2373), (sym_index_expression, 2373),
     (sym_ladder_diagram, 7970), (sym_fb_diagram, 7970),
     (aux_sym_ERR_fb_variables_after_method_repeat1, 354), (aux_sym_func_decl_repeat1, 7194),
     (aux_sym_func_decl_repeat2, 301), (aux_sym_fb_decl_repeat1, 116),
     (aux_sym_fb_decl_repeat2, 189), (aux_sym_fb_decl_repeat3, 364), (aux_sym_SFC_repeat1, 7612),
     (aux_sym_stmt_list_repeat1, 2024), (aux_sym_ladder_diagram_repeat1, 8009),
     (aux_sym_fb_diagram_repeat1, 8013), (sym_identifier, 298),
     (aux_sym_ERR_implements_before_extends_token1, 464),
     (aux_sym_ERR_extends_multiple_times_token1, 382),
     (aux_sym_ERR_unexpected_this_in_path_token1, 304),
     (aux_sym_ERR_unexpected_super_in_path_token1, 306), (sym_line_comment, 3),
     (anon_sym_LBRACE, 308), (aux_sym_test_pragma_token1, 9), (aux_sym_once_pragma_token1, 11),
     (aux_sym_must_call_pragma_token1, 13), (aux_sym_export_pragma_token1, 15),
     (anon_sym_SEMI, 310), (anon_sym_PERCENT, 312), (aux_sym_input_decls_token1, 314),
     (aux_sym_output_decls_token1, 316), (aux_sym_in_out_decls_token1, 318),
     (aux_sym_var_decls_token1, 320), (aux_sym_temp_var_decls_token1, 322),
     (aux_sym_external_var_decls_token1, 324), (aux_sym_global_var_decls_token1, 326),
     (aux_sym_fb_decl_token4, 466), (aux_sym_method_decl_token1, 330),
     (aux_sym_prog_access_decls_token1, 332), (aux_sym_initial_step_token1, 334),
     (aux_sym_config_init_token1, 336), (aux_sym_using_directive_token1, 338),
     (aux_sym__stmt_token1, 340), (aux_sym__stmt_token2, 340), (aux_sym__stmt_token3, 340),
     (aux_sym_if_stmt_token1, 342), (aux_sym_case_stmt_token1, 344), (aux_sym_for_stmt_token1, 346),
     (aux_sym_while_stmt_token1, 348), (aux_sym_repeat_stmt_token1, 350),
     (aux_sym_raise_stmt_token1, 352), (aux_sym_try_stmt_token1, 354),
     (aux_sym_try_stmt_token2, 356), (aux_sym_catch_clause_token1, 356),
     (aux_sym_finally_clause_token1, 356), (sym_ld_rung, 358), (sym_fbd_network, 360),
     (sym_c_style_comment, 3), (sym_pascal_style_comment, 3), (sym_pragma, 3)]"

lemma ts_parse_row_115_scan: "row_scan tokens_63_2 0 ts_parse_row_115 = Some (Suc (Suc (Suc (Suc 0))))"
  unfolding ts_parse_row_115_def by simp

text \<open>Lines 67451 to 67572.\<close>

definition ts_parse_row_116 :: parse_row where
  "ts_parse_row_116 =
    [(sym_ERR_implements_multiple_times, 144), (sym_ERR_extends_multiple_times, 2940),
     (sym_ERR_assign_func_call, 7530), (sym_ERR_unexpected_this_in_path, 2372),
     (sym_ERR_unexpected_super_in_path, 2372), (sym_ERR_fb_variables_after_method, 1426),
     (sym_ERR_var_access_not_allowed, 3160), (sym_ERR_var_config_not_allowed, 3160),
     (sym_ERR_var_global_not_allowed, 3160), (sym_ERR_method_decl_in_body, 3150),
     (sym_extern_pragma, 7490), (sym_wasm_pragma, 3150), (sym_warn_pragma, 7490),
     (sym_allow_pragma, 3140), (sym_test_pragma, 7490), (sym_once_pragma, 7490),
     (sym_must_call_pragma, 7490), (sym_export_pragma, 7490), (sym_pou_pragma, 7194),
     (sym_direct_variable, 7675), (sym_deref_expression, 2373), (sym_variable, 7599),
     (sym_var_access, 2373), (sym_in_out_decls, 3160), (sym_var_decls, 3160),
     (sym_retain_var_decls, 3160), (sym_temp_var_decls, 3160), (sym_external_var_decls, 3160),
     (sym_global_var_decls, 2947), (sym_loc_partly_var_decl, 3160), (sym__fb_variables, 306),
     (sym_fb_input_decls, 3160), (sym_fb_output_decls, 3160), (sym_no_retain_var_decls, 3160),
     (sym_fb_body, 10093), (sym_method_decl, 309), (sym_prog_access_decls, 3043), (sym_SFC, 7970),
     (sym_SFC_network, 7612), (sym_initial_step, 7439), (sym_config_init, 3047),
     (sym_using_directive, 289), (sym_variable_access, 7530), (sym_func_call, 2961),
     (sym_stmt_list, 7970), (sym__stmt, 2024), (sym_assign, 3150), (sym_if_stmt, 3150),
     (sym_case_stmt, 3150), (sym_for_stmt, 3150), (sym_while_stmt, 3150), (sym_repeat_stmt, 3150),
     (sym_raise_stmt, 3150), (sym_try_stmt, 3150), (sym_ERR_clause_outside_try, 3150),
     (sym_begin_path_expression, 2943), (sym_invocation, 2934), (sym_any_invocation, 2935),
     (sym_this_invocation, 2641), (sym_super_invocation, 2641), (sym_super_body_invocation, 2935),
     (sym_path_expression, 2627), (sym_field_expression, 2373), (sym_index_expression, 2373),
     (sym_ladder_diagram, 7970), (sym_fb_diagram, 7970),
     (aux_sym_ERR_fb_variables_after_method_repeat1, 306), (aux_sym_func_decl_repeat1, 7194),
     (aux_sym_func_decl_repeat2, 289), (aux_sym_fb_decl_repeat1, 2940),
     (aux_sym_fb_decl_repeat2, 144), (aux_sym_fb_decl_repeat3, 309), (aux_sym_SFC_repeat1, 7612),
     (aux_sym_stmt_list_repeat1, 2024), (aux_sym_ladder_diagram_repeat1, 8009),
     (aux_sym_fb_diagram_repeat1, 8013), (sym_identifier, 298),
     (aux_sym_ERR_implements_before_extends_token1, 468),
     (aux_sym_ERR_extends_multiple_times_token1, 382),
     (aux_sym_ERR_unexpected_this_in_path_token1, 304),
     (aux_sym_ERR_unexpected_super_in_path_token1, 306), (sym_line_comment, 3),
     (anon_sym_LBRACE, 308), (aux_sym_test_pragma_token1, 9), (aux_sym_once_pragma_token1, 11),
     (aux_sym_must_call_pragma_token1, 13), (aux_sym_export_pragma_token1, 15),
     (anon_sym_SEMI, 310), (anon_sym_PERCENT, 312), (aux_sym_input_decls_token1, 314),
     (aux_sym_output_decls_token1, 316), (aux_sym_in_out_decls_token1, 318),
     (aux_sym_var_decls_token1, 320), (aux_sym_temp_var_decls_token1, 322),
     (aux_sym_external_var_decls_token1, 324), (aux_sym_global_var_decls_token1, 326),
     (aux_sym_fb_decl_token4, 470), (aux_sym_method_decl_token1, 330),
     (aux_sym_prog_access_decls_token1, 332), (aux_sym_initial_step_token1, 334),
     (aux_sym_config_init_token1, 336), (aux_sym_using_directive_token1, 338),
     (aux_sym__stmt_token1, 340), (aux_sym__stmt_token2, 340), (aux_sym__stmt_token3, 340),
     (aux_sym_if_stmt_token1, 342), (aux_sym_case_stmt_token1, 344), (aux_sym_for_stmt_token1, 346),
     (aux_sym_while_stmt_token1, 348), (aux_sym_repeat_stmt_token1, 350),
     (aux_sym_raise_stmt_token1, 352), (aux_sym_try_stmt_token1, 354),
     (aux_sym_try_stmt_token2, 356), (aux_sym_catch_clause_token1, 356),
     (aux_sym_finally_clause_token1, 356), (sym_ld_rung, 358), (sym_fbd_network, 360),
     (sym_c_style_comment, 3), (sym_pascal_style_comment, 3), (sym_pragma, 3)]"

lemma ts_parse_row_116_scan: "row_scan tokens_63_2 0 ts_parse_row_116 = Some (Suc (Suc (Suc (Suc 0))))"
  unfolding ts_parse_row_116_def by simp

text \<open>Lines 67573 to 67694.\<close>

definition ts_parse_row_117 :: parse_row where
  "ts_parse_row_117 =
    [(sym_ERR_implements_multiple_times, 206), (sym_ERR_extends_multiple_times, 2940),
     (sym_ERR_assign_func_call, 7530), (sym_ERR_unexpected_this_in_path, 2372),
     (sym_ERR_unexpected_super_in_path, 2372), (sym_ERR_fb_variables_after_method, 1455),
     (sym_ERR_var_access_not_allowed, 3160), (sym_ERR_var_config_not_allowed, 3160),
     (sym_ERR_var_global_not_allowed, 3160), (sym_ERR_method_decl_in_body, 3150),
     (sym_extern_pragma, 7490), (sym_wasm_pragma, 3150), (sym_warn_pragma, 7490),
     (sym_allow_pragma, 3140), (sym_test_pragma, 7490), (sym_once_pragma, 7490),
     (sym_must_call_pragma, 7490), (sym_export_pragma, 7490), (sym_pou_pragma, 7194),
     (sym_direct_variable, 7675), (sym_deref_expression, 2373), (sym_variable, 7599),
     (sym_var_access, 2373), (sym_in_out_decls, 3160), (sym_var_decls, 3160),
     (sym_retain_var_decls, 3160), (sym_temp_var_decls, 3160), (sym_external_var_decls, 3160),
     (sym_global_var_decls, 2947), (sym_loc_partly_var_decl, 3160), (sym__fb_variables, 467),
     (sym_fb_input_decls, 3160), (sym_fb_output_decls, 3160), (sym_no_retain_var_decls, 3160),
     (sym_fb_body, 9774), (sym_method_decl, 499), (sym_prog_access_decls, 3043), (sym_SFC, 7970),
     (sym_SFC_network, 7612), (sym_initial_step, 7439), (sym_config_init, 3047),
     (sym_using_directive, 303), (sym_variable_access, 7530), (sym_func_call, 2961),
     (sym_stmt_list, 7970), (sym__stmt, 2024), (sym_assign, 3150), (sym_if_stmt, 3150),
     (sym_case_stmt, 3150), (sym_for_stmt, 3150), (sym_while_stmt, 3150), (sym_repeat_stmt, 3150),
     (sym_raise_stmt, 3150), (sym_try_stmt, 3150), (sym_ERR_clause_outside_try, 3150),
     (sym_begin_path_expression, 2943), (sym_invocation, 2934), (sym_any_invocation, 2935),
     (sym_this_invocation, 2641), (sym_super_invocation, 2641), (sym_super_body_invocation, 2935),
     (sym_path_expression, 2627), (sym_field_expression, 2373), (sym_index_expression, 2373),
     (sym_ladder_diagram, 7970), (sym_fb_diagram, 7970),
     (aux_sym_ERR_fb_variables_after_method_repeat1, 467), (aux_sym_func_decl_repeat1, 7194),
     (aux_sym_func_decl_repeat2, 303), (aux_sym_fb_decl_repeat1, 2940),
     (aux_sym_fb_decl_repeat2, 206), (aux_sym_fb_decl_repeat3, 499), (aux_sym_SFC_repeat1, 7612),
     (aux_sym_stmt_list_repeat1, 2024), (aux_sym_ladder_diagram_repeat1, 8009),
     (aux_sym_fb_diagram_repeat1, 8013), (sym_identifier, 298),
     (aux_sym_ERR_implements_before_extends_token1, 472),
     (aux_sym_ERR_extends_multiple_times_token1, 382),
     (aux_sym_ERR_unexpected_this_in_path_token1, 304),
     (aux_sym_ERR_unexpected_super_in_path_token1, 306), (sym_line_comment, 3),
     (anon_sym_LBRACE, 308), (aux_sym_test_pragma_token1, 9), (aux_sym_once_pragma_token1, 11),
     (aux_sym_must_call_pragma_token1, 13), (aux_sym_export_pragma_token1, 15),
     (anon_sym_SEMI, 310), (anon_sym_PERCENT, 312), (aux_sym_input_decls_token1, 314),
     (aux_sym_output_decls_token1, 316), (aux_sym_in_out_decls_token1, 318),
     (aux_sym_var_decls_token1, 320), (aux_sym_temp_var_decls_token1, 322),
     (aux_sym_external_var_decls_token1, 324), (aux_sym_global_var_decls_token1, 326),
     (aux_sym_fb_decl_token4, 474), (aux_sym_method_decl_token1, 330),
     (aux_sym_prog_access_decls_token1, 332), (aux_sym_initial_step_token1, 334),
     (aux_sym_config_init_token1, 336), (aux_sym_using_directive_token1, 338),
     (aux_sym__stmt_token1, 340), (aux_sym__stmt_token2, 340), (aux_sym__stmt_token3, 340),
     (aux_sym_if_stmt_token1, 342), (aux_sym_case_stmt_token1, 344), (aux_sym_for_stmt_token1, 346),
     (aux_sym_while_stmt_token1, 348), (aux_sym_repeat_stmt_token1, 350),
     (aux_sym_raise_stmt_token1, 352), (aux_sym_try_stmt_token1, 354),
     (aux_sym_try_stmt_token2, 356), (aux_sym_catch_clause_token1, 356),
     (aux_sym_finally_clause_token1, 356), (sym_ld_rung, 358), (sym_fbd_network, 360),
     (sym_c_style_comment, 3), (sym_pascal_style_comment, 3), (sym_pragma, 3)]"

lemma ts_parse_row_117_scan: "row_scan tokens_63_2 0 ts_parse_row_117 = Some (Suc (Suc (Suc (Suc 0))))"
  unfolding ts_parse_row_117_def by simp

text \<open>Lines 67695 to 67816.\<close>

definition ts_parse_row_118 :: parse_row where
  "ts_parse_row_118 =
    [(sym_ERR_implements_multiple_times, 204), (sym_ERR_extends_multiple_times, 121),
     (sym_ERR_assign_func_call, 7530), (sym_ERR_unexpected_this_in_path, 2372),
     (sym_ERR_unexpected_super_in_path, 2372), (sym_ERR_fb_variables_after_method, 1416),
     (sym_ERR_var_access_not_allowed, 3160), (sym_ERR_var_config_not_allowed, 3160),
     (sym_ERR_var_global_not_allowed, 3160), (sym_ERR_method_decl_in_body, 3150),
     (sym_extern_pragma, 7490), (sym_wasm_pragma, 3150), (sym_warn_pragma, 7490),
     (sym_allow_pragma, 3140), (sym_test_pragma, 7490), (sym_once_pragma, 7490),
     (sym_must_call_pragma, 7490), (sym_export_pragma, 7490), (sym_pou_pragma, 7194),
     (sym_direct_variable, 7675), (sym_deref_expression, 2373), (sym_variable, 7599),
     (sym_var_access, 2373), (sym_in_out_decls, 3160), (sym_var_decls, 3160),
     (sym_retain_var_decls, 3160), (sym_temp_var_decls, 3160), (sym_external_var_decls, 3160),
     (sym_global_var_decls, 2947), (sym_loc_partly_var_decl, 3160), (sym__fb_variables, 423),
     (sym_fb_input_decls, 3160), (sym_fb_output_decls, 3160), (sym_no_retain_var_decls, 3160),
     (sym_fb_body, 9728), (sym_method_decl, 429), (sym_prog_access_decls, 3043), (sym_SFC, 7970),
     (sym_SFC_network, 7612), (sym_initial_step, 7439), (sym_config_init, 3047),
     (sym_using_directive, 298), (sym_variable_access, 7530), (sym_func_call, 2961),
     (sym_stmt_list, 7970), (sym__stmt, 2024), (sym_assign, 3150), (sym_if_stmt, 3150),
     (sym_case_stmt, 3150), (sym_for_stmt, 3150), (sym_while_stmt, 3150), (sym_repeat_stmt, 3150),
     (sym_raise_stmt, 3150), (sym_try_stmt, 3150), (sym_ERR_clause_outside_try, 3150),
     (sym_begin_path_expression, 2943), (sym_invocation, 2934), (sym_any_invocation, 2935),
     (sym_this_invocation, 2641), (sym_super_invocation, 2641), (sym_super_body_invocation, 2935),
     (sym_path_expression, 2627), (sym_field_expression, 2373), (sym_index_expression, 2373),
     (sym_ladder_diagram, 7970), (sym_fb_diagram, 7970),
     (aux_sym_ERR_fb_variables_after_method_repeat1, 423), (aux_sym_func_decl_repeat1, 7194),
     (aux_sym_func_decl_repeat2, 298), (aux_sym_fb_decl_repeat1, 121),
     (aux_sym_fb_decl_repeat2, 204), (aux_sym_fb_decl_repeat3, 429), (aux_sym_SFC_repeat1, 7612),
     (aux_sym_stmt_list_repeat1, 2024), (aux_sym_ladder_diagram_repeat1, 8009),
     (aux_sym_fb_diagram_repeat1, 8013), (sym_identifier, 298),
     (aux_sym_ERR_implements_before_extends_token1, 476),
     (aux_sym_ERR_extends_multiple_times_token1, 382),
     (aux_sym_ERR_unexpected_this_in_path_token1, 304),
     (aux_sym_ERR_unexpected_super_in_path_token1, 306), (sym_line_comment, 3),
     (anon_sym_LBRACE, 308), (aux_sym_test_pragma_token1, 9), (aux_sym_once_pragma_token1, 11),
     (aux_sym_must_call_pragma_token1, 13), (aux_sym_export_pragma_token1, 15),
     (anon_sym_SEMI, 310), (anon_sym_PERCENT, 312), (aux_sym_input_decls_token1, 314),
     (aux_sym_output_decls_token1, 316), (aux_sym_in_out_decls_token1, 318),
     (aux_sym_var_decls_token1, 320), (aux_sym_temp_var_decls_token1, 322),
     (aux_sym_external_var_decls_token1, 324), (aux_sym_global_var_decls_token1, 326),
     (aux_sym_fb_decl_token4, 478), (aux_sym_method_decl_token1, 330),
     (aux_sym_prog_access_decls_token1, 332), (aux_sym_initial_step_token1, 334),
     (aux_sym_config_init_token1, 336), (aux_sym_using_directive_token1, 338),
     (aux_sym__stmt_token1, 340), (aux_sym__stmt_token2, 340), (aux_sym__stmt_token3, 340),
     (aux_sym_if_stmt_token1, 342), (aux_sym_case_stmt_token1, 344), (aux_sym_for_stmt_token1, 346),
     (aux_sym_while_stmt_token1, 348), (aux_sym_repeat_stmt_token1, 350),
     (aux_sym_raise_stmt_token1, 352), (aux_sym_try_stmt_token1, 354),
     (aux_sym_try_stmt_token2, 356), (aux_sym_catch_clause_token1, 356),
     (aux_sym_finally_clause_token1, 356), (sym_ld_rung, 358), (sym_fbd_network, 360),
     (sym_c_style_comment, 3), (sym_pascal_style_comment, 3), (sym_pragma, 3)]"

lemma ts_parse_row_118_scan: "row_scan tokens_63_2 0 ts_parse_row_118 = Some (Suc (Suc (Suc (Suc 0))))"
  unfolding ts_parse_row_118_def by simp

text \<open>Lines 67817 to 67938.\<close>

definition ts_parse_row_119 :: parse_row where
  "ts_parse_row_119 =
    [(sym_ERR_implements_multiple_times, 199), (sym_ERR_extends_multiple_times, 2940),
     (sym_ERR_assign_func_call, 7530), (sym_ERR_unexpected_this_in_path, 2372),
     (sym_ERR_unexpected_super_in_path, 2372), (sym_ERR_fb_variables_after_method, 1882),
     (sym_ERR_var_access_not_allowed, 3160), (sym_ERR_var_config_not_allowed, 3160),
     (sym_ERR_var_global_not_allowed, 3160), (sym_ERR_method_decl_in_body, 3150),
     (sym_extern_pragma, 7490), (sym_wasm_pragma, 3150), (sym_warn_pragma, 7490),
     (sym_allow_pragma, 3140), (sym_test_pragma, 7490), (sym_once_pragma, 7490),
     (sym_must_call_pragma, 7490), (sym_export_pragma, 7490), (sym_pou_pragma, 7194),
     (sym_direct_variable, 7675), (sym_deref_expression, 2373), (sym_variable, 7599),
     (sym_var_access, 2373), (sym_in_out_decls, 3160), (sym_var_decls, 3160),
     (sym_retain_var_decls, 3160), (sym_temp_var_decls, 3160), (sym_external_var_decls, 3160),
     (sym_global_var_decls, 2947), (sym_loc_partly_var_decl, 3160), (sym__fb_variables, 363),
     (sym_fb_input_decls, 3160), (sym_fb_output_decls, 3160), (sym_no_retain_var_decls, 3160),
     (sym_fb_body, 8787), (sym_method_decl, 868), (sym_prog_access_decls, 3043), (sym_SFC, 7970),
     (sym_SFC_network, 7612), (sym_initial_step, 7439), (sym_config_init, 3047),
     (sym_using_directive, 287), (sym_variable_access, 7530), (sym_func_call, 2961),
     (sym_stmt_list, 7970), (sym__stmt, 2024), (sym_assign, 3150), (sym_if_stmt, 3150),
     (sym_case_stmt, 3150), (sym_for_stmt, 3150), (sym_while_stmt, 3150), (sym_repeat_stmt, 3150),
     (sym_raise_stmt, 3150), (sym_try_stmt, 3150), (sym_ERR_clause_outside_try, 3150),
     (sym_begin_path_expression, 2943), (sym_invocation, 2934), (sym_any_invocation, 2935),
     (sym_this_invocation, 2641), (sym_super_invocation, 2641), (sym_super_body_invocation, 2935),
     (sym_path_expression, 2627), (sym_field_expression, 2373), (sym_index_expression, 2373),
     (sym_ladder_diagram, 7970), (sym_fb_diagram, 7970),
     (aux_sym_ERR_fb_variables_after_method_repeat1, 363), (aux_sym_func_decl_repeat1, 7194),
     (aux_sym_func_decl_repeat2, 287), (aux_sym_fb_decl_repeat1, 2940),
     (aux_sym_fb_decl_repeat2, 199), (aux_sym_fb_decl_repeat3, 868), (aux_sym_SFC_repeat1, 7612),
     (aux_sym_stmt_list_repeat1, 2024), (aux_sym_ladder_diagram_repeat1, 8009),
     (aux_sym_fb_diagram_repeat1, 8013), (sym_identifier, 298),
     (aux_sym_ERR_implements_before_extends_token1, 436),
     (aux_sym_ERR_extends_multiple_times_token1, 382),
     (aux_sym_ERR_unexpected_this_in_path_token1, 304),
     (aux_sym_ERR_unexpected_super_in_path_token1, 306), (sym_line_comment, 3),
     (anon_sym_LBRACE, 308), (aux_sym_test_pragma_token1, 9), (aux_sym_once_pragma_token1, 11),
     (aux_sym_must_call_pragma_token1, 13), (aux_sym_export_pragma_token1, 15),
     (anon_sym_SEMI, 310), (anon_sym_PERCENT, 312), (aux_sym_input_decls_token1, 314),
     (aux_sym_output_decls_token1, 316), (aux_sym_in_out_decls_token1, 318),
     (aux_sym_var_decls_token1, 320), (aux_sym_temp_var_decls_token1, 322),
     (aux_sym_external_var_decls_token1, 324), (aux_sym_global_var_decls_token1, 326),
     (aux_sym_fb_decl_token4, 440), (aux_sym_method_decl_token1, 330),
     (aux_sym_prog_access_decls_token1, 332), (aux_sym_initial_step_token1, 334),
     (aux_sym_config_init_token1, 336), (aux_sym_using_directive_token1, 338),
     (aux_sym__stmt_token1, 340), (aux_sym__stmt_token2, 340), (aux_sym__stmt_token3, 340),
     (aux_sym_if_stmt_token1, 342), (aux_sym_case_stmt_token1, 344), (aux_sym_for_stmt_token1, 346),
     (aux_sym_while_stmt_token1, 348), (aux_sym_repeat_stmt_token1, 350),
     (aux_sym_raise_stmt_token1, 352), (aux_sym_try_stmt_token1, 354),
     (aux_sym_try_stmt_token2, 356), (aux_sym_catch_clause_token1, 356),
     (aux_sym_finally_clause_token1, 356), (sym_ld_rung, 358), (sym_fbd_network, 360),
     (sym_c_style_comment, 3), (sym_pascal_style_comment, 3), (sym_pragma, 3)]"

lemma ts_parse_row_119_scan: "row_scan tokens_63_2 0 ts_parse_row_119 = Some (Suc (Suc (Suc (Suc 0))))"
  unfolding ts_parse_row_119_def by simp

text \<open>Lines 67939 to 68060.\<close>

definition ts_parse_row_120 :: parse_row where
  "ts_parse_row_120 =
    [(sym_ERR_implements_multiple_times, 200), (sym_ERR_extends_multiple_times, 117),
     (sym_ERR_assign_func_call, 7530), (sym_ERR_unexpected_this_in_path, 2372),
     (sym_ERR_unexpected_super_in_path, 2372), (sym_ERR_fb_variables_after_method, 1796),
     (sym_ERR_var_access_not_allowed, 3160), (sym_ERR_var_config_not_allowed, 3160),
     (sym_ERR_var_global_not_allowed, 3160), (sym_ERR_method_decl_in_body, 3150),
     (sym_extern_pragma, 7490), (sym_wasm_pragma, 3150), (sym_warn_pragma, 7490),
     (sym_allow_pragma, 3140), (sym_test_pragma, 7490), (sym_once_pragma, 7490),
     (sym_must_call_pragma, 7490), (sym_export_pragma, 7490), (sym_pou_pragma, 7194),
     (sym_direct_variable, 7675), (sym_deref_expression, 2373), (sym_variable, 7599),
     (sym_var_access, 2373), (sym_in_out_decls, 3160), (sym_var_decls, 3160),
     (sym_retain_var_decls, 3160), (sym_temp_var_decls, 3160), (sym_external_var_decls, 3160),
     (sym_global_var_decls, 2947), (sym_loc_partly_var_decl, 3160), (sym__fb_variables, 428),
     (sym_fb_input_decls, 3160), (sym_fb_output_decls, 3160), (sym_no_retain_var_decls, 3160),
     (sym_fb_body, 10493), (sym_method_decl, 717), (sym_prog_access_decls, 3043), (sym_SFC, 7970),
     (sym_SFC_network, 7612), (sym_initial_step, 7439), (sym_config_init, 3047),
     (sym_using_directive, 288), (sym_variable_access, 7530), (sym_func_call, 2961),
     (sym_stmt_list, 7970), (sym__stmt, 2024), (sym_assign, 3150), (sym_if_stmt, 3150),
     (sym_case_stmt, 3150), (sym_for_stmt, 3150), (sym_while_stmt, 3150), (sym_repeat_stmt, 3150),
     (sym_raise_stmt, 3150), (sym_try_stmt, 3150), (sym_ERR_clause_outside_try, 3150),
     (sym_begin_path_expression, 2943), (sym_invocation, 2934), (sym_any_invocation, 2935),
     (sym_this_invocation, 2641), (sym_super_invocation, 2641), (sym_super_body_invocation, 2935),
     (sym_path_expression, 2627), (sym_field_expression, 2373), (sym_index_expression, 2373),
     (sym_ladder_diagram, 7970), (sym_fb_diagram, 7970),
     (aux_sym_ERR_fb_variables_after_method_repeat1, 428), (aux_sym_func_decl_repeat1, 7194),
     (aux_sym_func_decl_repeat2, 288), (aux_sym_fb_decl_repeat1, 117),
     (aux_sym_fb_decl_repeat2, 200), (aux_sym_fb_decl_repeat3, 717), (aux_sym_SFC_repeat1, 7612),
     (aux_sym_stmt_list_repeat1, 2024), (aux_sym_ladder_diagram_repeat1, 8009),
     (aux_sym_fb_diagram_repeat1, 8013), (sym_identifier, 298),
     (aux_sym_ERR_implements_before_extends_token1, 394),
     (aux_sym_ERR_extends_multiple_times_token1, 480),
     (aux_sym_ERR_unexpected_this_in_path_token1, 304),
     (aux_sym_ERR_unexpected_super_in_path_token1, 306), (sym_line_comment, 3),
     (anon_sym_LBRACE, 308), (aux_sym_test_pragma_token1, 9), (aux_sym_once_pragma_token1, 11),
     (aux_sym_must_call_pragma_token1, 13), (aux_sym_export_pragma_token1, 15),
     (anon_sym_SEMI, 310), (anon_sym_PERCENT, 312), (aux_sym_input_decls_token1, 314),
     (aux_sym_output_decls_token1, 316), (aux_sym_in_out_decls_token1, 318),
     (aux_sym_var_decls_token1, 320), (aux_sym_temp_var_decls_token1, 322),
     (aux_sym_external_var_decls_token1, 324), (aux_sym_global_var_decls_token1, 326),
     (aux_sym_fb_decl_token4, 396), (aux_sym_method_decl_token1, 330),
     (aux_sym_prog_access_decls_token1, 332), (aux_sym_initial_step_token1, 334),
     (aux_sym_config_init_token1, 336), (aux_sym_using_directive_token1, 338),
     (aux_sym__stmt_token1, 340), (aux_sym__stmt_token2, 340), (aux_sym__stmt_token3, 340),
     (aux_sym_if_stmt_token1, 342), (aux_sym_case_stmt_token1, 344), (aux_sym_for_stmt_token1, 346),
     (aux_sym_while_stmt_token1, 348), (aux_sym_repeat_stmt_token1, 350),
     (aux_sym_raise_stmt_token1, 352), (aux_sym_try_stmt_token1, 354),
     (aux_sym_try_stmt_token2, 356), (aux_sym_catch_clause_token1, 356),
     (aux_sym_finally_clause_token1, 356), (sym_ld_rung, 358), (sym_fbd_network, 360),
     (sym_c_style_comment, 3), (sym_pascal_style_comment, 3), (sym_pragma, 3)]"

lemma ts_parse_row_120_scan: "row_scan tokens_63_2 0 ts_parse_row_120 = Some (Suc (Suc (Suc (Suc 0))))"
  unfolding ts_parse_row_120_def by simp

text \<open>Lines 68061 to 68182.\<close>

definition ts_parse_row_121 :: parse_row where
  "ts_parse_row_121 =
    [(sym_ERR_implements_multiple_times, 129), (sym_ERR_extends_multiple_times, 2940),
     (sym_ERR_assign_func_call, 7530), (sym_ERR_unexpected_this_in_path, 2372),
     (sym_ERR_unexpected_super_in_path, 2372), (sym_ERR_fb_variables_after_method, 1966),
     (sym_ERR_var_access_not_allowed, 3160), (sym_ERR_var_config_not_allowed, 3160),
     (sym_ERR_var_global_not_allowed, 3160), (sym_ERR_method_decl_in_body, 3150),
     (sym_extern_pragma, 7490), (sym_wasm_pragma, 3150), (sym_warn_pragma, 7490),
     (sym_allow_pragma, 3140), (sym_test_pragma, 7490), (sym_once_pragma, 7490),
     (sym_must_call_pragma, 7490), (sym_export_pragma, 7490), (sym_pou_pragma, 7194),
     (sym_direct_variable, 7675), (sym_deref_expression, 2373), (sym_variable, 7599),
     (sym_var_access, 2373), (sym_in_out_decls, 3160), (sym_var_decls, 3160),
     (sym_retain_var_decls, 3160), (sym_temp_var_decls, 3160), (sym_external_var_decls, 3160),
     (sym_global_var_decls, 2947), (sym_loc_partly_var_decl, 3160), (sym__fb_variables, 487),
     (sym_fb_input_decls, 3160), (sym_fb_output_decls, 3160), (sym_no_retain_var_decls, 3160),
     (sym_fb_body, 9222), (sym_method_decl, 502), (sym_prog_access_decls, 3043), (sym_SFC, 7970),
     (sym_SFC_network, 7612), (sym_initial_step, 7439), (sym_config_init, 3047),
     (sym_using_directive, 295), (sym_variable_access, 7530), (sym_func_call, 2961),
     (sym_stmt_list, 7970), (sym__stmt, 2024), (sym_assign, 3150), (sym_if_stmt, 3150),
     (sym_case_stmt, 3150), (sym_for_stmt, 3150), (sym_while_stmt, 3150), (sym_repeat_stmt, 3150),
     (sym_raise_stmt, 3150), (sym_try_stmt, 3150), (sym_ERR_clause_outside_try, 3150),
     (sym_begin_path_expression, 2943), (sym_invocation, 2934), (sym_any_invocation, 2935),
     (sym_this_invocation, 2641), (sym_super_invocation, 2641), (sym_super_body_invocation, 2935),
     (sym_path_expression, 2627), (sym_field_expression, 2373), (sym_index_expression, 2373),
     (sym_ladder_diagram, 7970), (sym_fb_diagram, 7970),
     (aux_sym_ERR_fb_variables_after_method_repeat1, 487), (aux_sym_func_decl_repeat1, 7194),
     (aux_sym_func_decl_repeat2, 295), (aux_sym_fb_decl_repeat1, 2940),
     (aux_sym_fb_decl_repeat2, 129), (aux_sym_fb_decl_repeat3, 502), (aux_sym_SFC_repeat1, 7612),
     (aux_sym_stmt_list_repeat1, 2024), (aux_sym_ladder_diagram_repeat1, 8009),
     (aux_sym_fb_diagram_repeat1, 8013), (sym_identifier, 298),
     (aux_sym_ERR_implements_before_extends_token1, 482),
     (aux_sym_ERR_extends_multiple_times_token1, 382),
     (aux_sym_ERR_unexpected_this_in_path_token1, 304),
     (aux_sym_ERR_unexpected_super_in_path_token1, 306), (sym_line_comment, 3),
     (anon_sym_LBRACE, 308), (aux_sym_test_pragma_token1, 9), (aux_sym_once_pragma_token1, 11),
     (aux_sym_must_call_pragma_token1, 13), (aux_sym_export_pragma_token1, 15),
     (anon_sym_SEMI, 310), (anon_sym_PERCENT, 312), (aux_sym_input_decls_token1, 314),
     (aux_sym_output_decls_token1, 316), (aux_sym_in_out_decls_token1, 318),
     (aux_sym_var_decls_token1, 320), (aux_sym_temp_var_decls_token1, 322),
     (aux_sym_external_var_decls_token1, 324), (aux_sym_global_var_decls_token1, 326),
     (aux_sym_fb_decl_token4, 484), (aux_sym_method_decl_token1, 330),
     (aux_sym_prog_access_decls_token1, 332), (aux_sym_initial_step_token1, 334),
     (aux_sym_config_init_token1, 336), (aux_sym_using_directive_token1, 338),
     (aux_sym__stmt_token1, 340), (aux_sym__stmt_token2, 340), (aux_sym__stmt_token3, 340),
     (aux_sym_if_stmt_token1, 342), (aux_sym_case_stmt_token1, 344), (aux_sym_for_stmt_token1, 346),
     (aux_sym_while_stmt_token1, 348), (aux_sym_repeat_stmt_token1, 350),
     (aux_sym_raise_stmt_token1, 352), (aux_sym_try_stmt_token1, 354),
     (aux_sym_try_stmt_token2, 356), (aux_sym_catch_clause_token1, 356),
     (aux_sym_finally_clause_token1, 356), (sym_ld_rung, 358), (sym_fbd_network, 360),
     (sym_c_style_comment, 3), (sym_pascal_style_comment, 3), (sym_pragma, 3)]"

lemma ts_parse_row_121_scan: "row_scan tokens_63_2 0 ts_parse_row_121 = Some (Suc (Suc (Suc (Suc 0))))"
  unfolding ts_parse_row_121_def by simp

text \<open>Lines 68183 to 68302.\<close>

definition ts_parse_row_122 :: parse_row where
  "ts_parse_row_122 =
    [(sym_ERR_implements_multiple_times, 127), (sym_ERR_assign_func_call, 7530),
     (sym_ERR_unexpected_this_in_path, 2372), (sym_ERR_unexpected_super_in_path, 2372),
     (sym_ERR_fb_variables_after_method, 1867), (sym_ERR_var_access_not_allowed, 3160),
     (sym_ERR_var_config_not_allowed, 3160), (sym_ERR_var_global_not_allowed, 3160),
     (sym_ERR_method_decl_in_body, 3150), (sym_extern_pragma, 7490), (sym_wasm_pragma, 3150),
     (sym_warn_pragma, 7490), (sym_allow_pragma, 3140), (sym_test_pragma, 7490),
     (sym_once_pragma, 7490), (sym_must_call_pragma, 7490), (sym_export_pragma, 7490),
     (sym_pou_pragma, 7194), (sym_direct_variable, 7675), (sym_deref_expression, 2373),
     (sym_variable, 7599), (sym_var_access, 2373), (sym_in_out_decls, 3160), (sym_var_decls, 3160),
     (sym_retain_var_decls, 3160), (sym_temp_var_decls, 3160), (sym_external_var_decls, 3160),
     (sym_global_var_decls, 2947), (sym_loc_partly_var_decl, 3160), (sym__fb_variables, 861),
     (sym_fb_input_decls, 3160), (sym_fb_output_decls, 3160), (sym_no_retain_var_decls, 3160),
     (sym_fb_body, 9008), (sym_method_decl, 327), (sym_prog_access_decls, 3043), (sym_SFC, 7970),
     (sym_SFC_network, 7612), (sym_initial_step, 7439), (sym_config_init, 3047),
     (sym_using_directive, 293), (sym_variable_access, 7530), (sym_func_call, 2961),
     (sym_stmt_list, 7970), (sym__stmt, 2024), (sym_assign, 3150), (sym_if_stmt, 3150),
     (sym_case_stmt, 3150), (sym_for_stmt, 3150), (sym_while_stmt, 3150), (sym_repeat_stmt, 3150),
     (sym_raise_stmt, 3150), (sym_try_stmt, 3150), (sym_ERR_clause_outside_try, 3150),
     (sym_begin_path_expression, 2943), (sym_invocation, 2934), (sym_any_invocation, 2935),
     (sym_this_invocation, 2641), (sym_super_invocation, 2641), (sym_super_body_invocation, 2935),
     (sym_path_expression, 2627), (sym_field_expression, 2373), (sym_index_expression, 2373),
     (sym_ladder_diagram, 7970), (sym_fb_diagram, 7970),
     (aux_sym_ERR_fb_variables_after_method_repeat1, 861), (aux_sym_func_decl_repeat1, 7194),
     (aux_sym_func_decl_repeat2, 293), (aux_sym_fb_decl_repeat2, 127),
     (aux_sym_fb_decl_repeat3, 327), (aux_sym_SFC_repeat1, 7612), (aux_sym_stmt_list_repeat1, 2024),
     (aux_sym_ladder_diagram_repeat1, 8009), (aux_sym_fb_diagram_repeat1, 8013),
     (sym_identifier, 298), (aux_sym_ERR_implements_before_extends_token1, 486),
     (aux_sym_ERR_extends_multiple_times_token1, 488),
     (aux_sym_ERR_unexpected_this_in_path_token1, 304),
     (aux_sym_ERR_unexpected_super_in_path_token1, 306), (sym_line_comment, 3),
     (anon_sym_LBRACE, 308), (aux_sym_test_pragma_token1, 9), (aux_sym_once_pragma_token1, 11),
     (aux_sym_must_call_pragma_token1, 13), (aux_sym_export_pragma_token1, 15),
     (anon_sym_SEMI, 310), (anon_sym_PERCENT, 312), (aux_sym_input_decls_token1, 314),
     (aux_sym_output_decls_token1, 316), (aux_sym_in_out_decls_token1, 318),
     (aux_sym_var_decls_token1, 320), (aux_sym_temp_var_decls_token1, 322),
     (aux_sym_external_var_decls_token1, 324), (aux_sym_global_var_decls_token1, 326),
     (aux_sym_fb_decl_token4, 490), (aux_sym_method_decl_token1, 330),
     (aux_sym_prog_access_decls_token1, 332), (aux_sym_initial_step_token1, 334),
     (aux_sym_config_init_token1, 336), (aux_sym_using_directive_token1, 338),
     (aux_sym__stmt_token1, 340), (aux_sym__stmt_token2, 340), (aux_sym__stmt_token3, 340),
     (aux_sym_if_stmt_token1, 342), (aux_sym_case_stmt_token1, 344), (aux_sym_for_stmt_token1, 346),
     (aux_sym_while_stmt_token1, 348), (aux_sym_repeat_stmt_token1, 350),
     (aux_sym_raise_stmt_token1, 352), (aux_sym_try_stmt_token1, 354),
     (aux_sym_try_stmt_token2, 356), (aux_sym_catch_clause_token1, 356),
     (aux_sym_finally_clause_token1, 356), (sym_ld_rung, 358), (sym_fbd_network, 360),
     (sym_c_style_comment, 3), (sym_pascal_style_comment, 3), (sym_pragma, 3)]"

lemma ts_parse_row_122_scan: "row_scan tokens_63_2 0 ts_parse_row_122 = Some (Suc (Suc (Suc (Suc 0))))"
  unfolding ts_parse_row_122_def by simp

text \<open>Lines 68303 to 68422.\<close>

definition ts_parse_row_123 :: parse_row where
  "ts_parse_row_123 =
    [(sym_ERR_implements_multiple_times, 139), (sym_ERR_assign_func_call, 7530),
     (sym_ERR_unexpected_this_in_path, 2372), (sym_ERR_unexpected_super_in_path, 2372),
     (sym_ERR_fb_variables_after_method, 1365), (sym_ERR_var_access_not_allowed, 3160),
     (sym_ERR_var_config_not_allowed, 3160), (sym_ERR_var_global_not_allowed, 3160),
     (sym_ERR_method_decl_in_body, 3150), (sym_extern_pragma, 7490), (sym_wasm_pragma, 3150),
     (sym_warn_pragma, 7490), (sym_allow_pragma, 3140), (sym_test_pragma, 7490),
     (sym_once_pragma, 7490), (sym_must_call_pragma, 7490), (sym_export_pragma, 7490),
     (sym_pou_pragma, 7194), (sym_direct_variable, 7675), (sym_deref_expression, 2373),
     (sym_variable, 7599), (sym_var_access, 2373), (sym_in_out_decls, 3160), (sym_var_decls, 3160),
     (sym_retain_var_decls, 3160), (sym_temp_var_decls, 3160), (sym_external_var_decls, 3160),
     (sym_global_var_decls, 2947), (sym_loc_partly_var_decl, 3160), (sym__fb_variables, 852),
     (sym_fb_input_decls, 3160), (sym_fb_output_decls, 3160), (sym_no_retain_var_decls, 3160),
     (sym_fb_body, 9648), (sym_method_decl, 855), (sym_prog_access_decls, 3043), (sym_SFC, 7970),
     (sym_SFC_network, 7612), (sym_initial_step, 7439), (sym_config_init, 3047),
     (sym_using_directive, 226), (sym_variable_access, 7530), (sym_func_call, 2961),
     (sym_stmt_list, 7970), (sym__stmt, 2024), (sym_assign, 3150), (sym_if_stmt, 3150),
     (sym_case_stmt, 3150), (sym_for_stmt, 3150), (sym_while_stmt, 3150), (sym_repeat_stmt, 3150),
     (sym_raise_stmt, 3150), (sym_try_stmt, 3150), (sym_ERR_clause_outside_try, 3150),
     (sym_begin_path_expression, 2943), (sym_invocation, 2934), (sym_any_invocation, 2935),
     (sym_this_invocation, 2641), (sym_super_invocation, 2641), (sym_super_body_invocation, 2935),
     (sym_path_expression, 2627), (sym_field_expression, 2373), (sym_index_expression, 2373),
     (sym_ladder_diagram, 7970), (sym_fb_diagram, 7970),
     (aux_sym_ERR_fb_variables_after_method_repeat1, 852), (aux_sym_func_decl_repeat1, 7194),
     (aux_sym_func_decl_repeat2, 226), (aux_sym_fb_decl_repeat2, 139),
     (aux_sym_fb_decl_repeat3, 855), (aux_sym_SFC_repeat1, 7612), (aux_sym_stmt_list_repeat1, 2024),
     (aux_sym_ladder_diagram_repeat1, 8009), (aux_sym_fb_diagram_repeat1, 8013),
     (sym_identifier, 298), (aux_sym_ERR_implements_before_extends_token1, 486),
     (aux_sym_ERR_extends_multiple_times_token1, 488),
     (aux_sym_ERR_unexpected_this_in_path_token1, 304),
     (aux_sym_ERR_unexpected_super_in_path_token1, 306), (sym_line_comment, 3),
     (anon_sym_LBRACE, 308), (aux_sym_test_pragma_token1, 9), (aux_sym_once_pragma_token1, 11),
     (aux_sym_must_call_pragma_token1, 13), (aux_sym_export_pragma_token1, 15),
     (anon_sym_SEMI, 310), (anon_sym_PERCENT, 312), (aux_sym_input_decls_token1, 314),
     (aux_sym_output_decls_token1, 316), (aux_sym_in_out_decls_token1, 318),
     (aux_sym_var_decls_token1, 320), (aux_sym_temp_var_decls_token1, 322),
     (aux_sym_external_var_decls_token1, 324), (aux_sym_global_var_decls_token1, 326),
     (aux_sym_fb_decl_token4, 492), (aux_sym_method_decl_token1, 330),
     (aux_sym_prog_access_decls_token1, 332), (aux_sym_initial_step_token1, 334),
     (aux_sym_config_init_token1, 336), (aux_sym_using_directive_token1, 338),
     (aux_sym__stmt_token1, 340), (aux_sym__stmt_token2, 340), (aux_sym__stmt_token3, 340),
     (aux_sym_if_stmt_token1, 342), (aux_sym_case_stmt_token1, 344), (aux_sym_for_stmt_token1, 346),
     (aux_sym_while_stmt_token1, 348), (aux_sym_repeat_stmt_token1, 350),
     (aux_sym_raise_stmt_token1, 352), (aux_sym_try_stmt_token1, 354),
     (aux_sym_try_stmt_token2, 356), (aux_sym_catch_clause_token1, 356),
     (aux_sym_finally_clause_token1, 356), (sym_ld_rung, 358), (sym_fbd_network, 360),
     (sym_c_style_comment, 3), (sym_pascal_style_comment, 3), (sym_pragma, 3)]"

lemma ts_parse_row_123_scan: "row_scan tokens_63_2 0 ts_parse_row_123 = Some (Suc (Suc (Suc (Suc 0))))"
  unfolding ts_parse_row_123_def by simp

text \<open>Lines 68423 to 68542.\<close>

definition ts_parse_row_124 :: parse_row where
  "ts_parse_row_124 =
    [(sym_ERR_implements_multiple_times, 203), (sym_ERR_assign_func_call, 7530),
     (sym_ERR_unexpected_this_in_path, 2372), (sym_ERR_unexpected_super_in_path, 2372),
     (sym_ERR_fb_variables_after_method, 1406), (sym_ERR_var_access_not_allowed, 3160),
     (sym_ERR_var_config_not_allowed, 3160), (sym_ERR_var_global_not_allowed, 3160),
     (sym_ERR_method_decl_in_body, 3150), (sym_extern_pragma, 7490), (sym_wasm_pragma, 3150),
     (sym_warn_pragma, 7490), (sym_allow_pragma, 3140), (sym_test_pragma, 7490),
     (sym_once_pragma, 7490), (sym_must_call_pragma, 7490), (sym_export_pragma, 7490),
     (sym_pou_pragma, 7194), (sym_direct_variable, 7675), (sym_deref_expression, 2373),
     (sym_variable, 7599), (sym_var_access, 2373), (sym_in_out_decls, 3160), (sym_var_decls, 3160),
     (sym_retain_var_decls, 3160), (sym_temp_var_decls, 3160), (sym_external_var_decls, 3160),
     (sym_global_var_decls, 2947), (sym_loc_partly_var_decl, 3160), (sym__fb_variables, 399),
     (sym_fb_input_decls, 3160), (sym_fb_output_decls, 3160), (sym_no_retain_var_decls, 3160),
     (sym_fb_body, 9699), (sym_method_decl, 420), (sym_prog_access_decls, 3043), (sym_SFC, 7970),
     (sym_SFC_network, 7612), (sym_initial_step, 7439), (sym_config_init, 3047),
     (sym_using_directive, 296), (sym_variable_access, 7530), (sym_func_call, 2961),
     (sym_stmt_list, 7970), (sym__stmt, 2024), (sym_assign, 3150), (sym_if_stmt, 3150),
     (sym_case_stmt, 3150), (sym_for_stmt, 3150), (sym_while_stmt, 3150), (sym_repeat_stmt, 3150),
     (sym_raise_stmt, 3150), (sym_try_stmt, 3150), (sym_ERR_clause_outside_try, 3150),
     (sym_begin_path_expression, 2943), (sym_invocation, 2934), (sym_any_invocation, 2935),
     (sym_this_invocation, 2641), (sym_super_invocation, 2641), (sym_super_body_invocation, 2935),
     (sym_path_expression, 2627), (sym_field_expression, 2373), (sym_index_expression, 2373),
     (sym_ladder_diagram, 7970), (sym_fb_diagram, 7970),
     (aux_sym_ERR_fb_variables_after_method_repeat1, 399), (aux_sym_func_decl_repeat1, 7194),
     (aux_sym_func_decl_repeat2, 296), (aux_sym_fb_decl_repeat2, 203),
     (aux_sym_fb_decl_repeat3, 420), (aux_sym_SFC_repeat1, 7612), (aux_sym_stmt_list_repeat1, 2024),
     (aux_sym_ladder_diagram_repeat1, 8009), (aux_sym_fb_diagram_repeat1, 8013),
     (sym_identifier, 298), (aux_sym_ERR_implements_before_extends_token1, 486),
     (aux_sym_ERR_extends_multiple_times_token1, 488),
     (aux_sym_ERR_unexpected_this_in_path_token1, 304),
     (aux_sym_ERR_unexpected_super_in_path_token1, 306), (sym_line_comment, 3),
     (anon_sym_LBRACE, 308), (aux_sym_test_pragma_token1, 9), (aux_sym_once_pragma_token1, 11),
     (aux_sym_must_call_pragma_token1, 13), (aux_sym_export_pragma_token1, 15),
     (anon_sym_SEMI, 310), (anon_sym_PERCENT, 312), (aux_sym_input_decls_token1, 314),
     (aux_sym_output_decls_token1, 316), (aux_sym_in_out_decls_token1, 318),
     (aux_sym_var_decls_token1, 320), (aux_sym_temp_var_decls_token1, 322),
     (aux_sym_external_var_decls_token1, 324), (aux_sym_global_var_decls_token1, 326),
     (aux_sym_fb_decl_token4, 494), (aux_sym_method_decl_token1, 330),
     (aux_sym_prog_access_decls_token1, 332), (aux_sym_initial_step_token1, 334),
     (aux_sym_config_init_token1, 336), (aux_sym_using_directive_token1, 338),
     (aux_sym__stmt_token1, 340), (aux_sym__stmt_token2, 340), (aux_sym__stmt_token3, 340),
     (aux_sym_if_stmt_token1, 342), (aux_sym_case_stmt_token1, 344), (aux_sym_for_stmt_token1, 346),
     (aux_sym_while_stmt_token1, 348), (aux_sym_repeat_stmt_token1, 350),
     (aux_sym_raise_stmt_token1, 352), (aux_sym_try_stmt_token1, 354),
     (aux_sym_try_stmt_token2, 356), (aux_sym_catch_clause_token1, 356),
     (aux_sym_finally_clause_token1, 356), (sym_ld_rung, 358), (sym_fbd_network, 360),
     (sym_c_style_comment, 3), (sym_pascal_style_comment, 3), (sym_pragma, 3)]"

lemma ts_parse_row_124_scan: "row_scan tokens_63_2 0 ts_parse_row_124 = Some (Suc (Suc (Suc (Suc 0))))"
  unfolding ts_parse_row_124_def by simp

text \<open>Lines 68543 to 68662.\<close>

definition ts_parse_row_125 :: parse_row where
  "ts_parse_row_125 =
    [(sym_ERR_implements_multiple_times, 162), (sym_ERR_assign_func_call, 7530),
     (sym_ERR_unexpected_this_in_path, 2372), (sym_ERR_unexpected_super_in_path, 2372),
     (sym_ERR_fb_variables_after_method, 1865), (sym_ERR_var_access_not_allowed, 3160),
     (sym_ERR_var_config_not_allowed, 3160), (sym_ERR_var_global_not_allowed, 3160),
     (sym_ERR_method_decl_in_body, 3150), (sym_extern_pragma, 7490), (sym_wasm_pragma, 3150),
     (sym_warn_pragma, 7490), (sym_allow_pragma, 3140), (sym_test_pragma, 7490),
     (sym_once_pragma, 7490), (sym_must_call_pragma, 7490), (sym_export_pragma, 7490),
     (sym_pou_pragma, 7194), (sym_direct_variable, 7675), (sym_deref_expression, 2373),
     (sym_variable, 7599), (sym_var_access, 2373), (sym_in_out_decls, 3160), (sym_var_decls, 3160),
     (sym_retain_var_decls, 3160), (sym_temp_var_decls, 3160), (sym_external_var_decls, 3160),
     (sym_global_var_decls, 2947), (sym_loc_partly_var_decl, 3160), (sym__fb_variables, 338),
     (sym_fb_input_decls, 3160), (sym_fb_output_decls, 3160), (sym_no_retain_var_decls, 3160),
     (sym_fb_body, 8315), (sym_method_decl, 352), (sym_prog_access_decls, 3043), (sym_SFC, 7970),
     (sym_SFC_network, 7612), (sym_initial_step, 7439), (sym_config_init, 3047),
     (sym_using_directive, 228), (sym_variable_access, 7530), (sym_func_call, 2961),
     (sym_stmt_list, 7970), (sym__stmt, 2024), (sym_assign, 3150), (sym_if_stmt, 3150),
     (sym_case_stmt, 3150), (sym_for_stmt, 3150), (sym_while_stmt, 3150), (sym_repeat_stmt, 3150),
     (sym_raise_stmt, 3150), (sym_try_stmt, 3150), (sym_ERR_clause_outside_try, 3150),
     (sym_begin_path_expression, 2943), (sym_invocation, 2934), (sym_any_invocation, 2935),
     (sym_this_invocation, 2641), (sym_super_invocation, 2641), (sym_super_body_invocation, 2935),
     (sym_path_expression, 2627), (sym_field_expression, 2373), (sym_index_expression, 2373),
     (sym_ladder_diagram, 7970), (sym_fb_diagram, 7970),
     (aux_sym_ERR_fb_variables_after_method_repeat1, 338), (aux_sym_func_decl_repeat1, 7194),
     (aux_sym_func_decl_repeat2, 228), (aux_sym_fb_decl_repeat2, 162),
     (aux_sym_fb_decl_repeat3, 352), (aux_sym_SFC_repeat1, 7612), (aux_sym_stmt_list_repeat1, 2024),
     (aux_sym_ladder_diagram_repeat1, 8009), (aux_sym_fb_diagram_repeat1, 8013),
     (sym_identifier, 298), (aux_sym_ERR_implements_before_extends_token1, 486),
     (aux_sym_ERR_extends_multiple_times_token1, 488),
     (aux_sym_ERR_unexpected_this_in_path_token1, 304),
     (aux_sym_ERR_unexpected_super_in_path_token1, 306), (sym_line_comment, 3),
     (anon_sym_LBRACE, 308), (aux_sym_test_pragma_token1, 9), (aux_sym_once_pragma_token1, 11),
     (aux_sym_must_call_pragma_token1, 13), (aux_sym_export_pragma_token1, 15),
     (anon_sym_SEMI, 310), (anon_sym_PERCENT, 312), (aux_sym_input_decls_token1, 314),
     (aux_sym_output_decls_token1, 316), (aux_sym_in_out_decls_token1, 318),
     (aux_sym_var_decls_token1, 320), (aux_sym_temp_var_decls_token1, 322),
     (aux_sym_external_var_decls_token1, 324), (aux_sym_global_var_decls_token1, 326),
     (aux_sym_fb_decl_token4, 496), (aux_sym_method_decl_token1, 330),
     (aux_sym_prog_access_decls_token1, 332), (aux_sym_initial_step_token1, 334),
     (aux_sym_config_init_token1, 336), (aux_sym_using_directive_token1, 338),
     (aux_sym__stmt_token1, 340), (aux_sym__stmt_token2, 340), (aux_sym__stmt_token3, 340),
     (aux_sym_if_stmt_token1, 342), (aux_sym_case_stmt_token1, 344), (aux_sym_for_stmt_token1, 346),
     (aux_sym_while_stmt_token1, 348), (aux_sym_repeat_stmt_token1, 350),
     (aux_sym_raise_stmt_token1, 352), (aux_sym_try_stmt_token1, 354),
     (aux_sym_try_stmt_token2, 356), (aux_sym_catch_clause_token1, 356),
     (aux_sym_finally_clause_token1, 356), (sym_ld_rung, 358), (sym_fbd_network, 360),
     (sym_c_style_comment, 3), (sym_pascal_style_comment, 3), (sym_pragma, 3)]"

lemma ts_parse_row_125_scan: "row_scan tokens_63_2 0 ts_parse_row_125 = Some (Suc (Suc (Suc (Suc 0))))"
  unfolding ts_parse_row_125_def by simp

text \<open>Lines 68663 to 68781.\<close>

definition ts_parse_row_126 :: parse_row where
  "ts_parse_row_126 =
    [(sym_ERR_implements_multiple_times, 2978), (sym_ERR_assign_func_call, 7530),
     (sym_ERR_unexpected_this_in_path, 2372), (sym_ERR_unexpected_super_in_path, 2372),
     (sym_ERR_fb_variables_after_method, 1342), (sym_ERR_var_access_not_allowed, 3160),
     (sym_ERR_var_config_not_allowed, 3160), (sym_ERR_var_global_not_allowed, 3160),
     (sym_ERR_method_decl_in_body, 3150), (sym_extern_pragma, 7490), (sym_wasm_pragma, 3150),
     (sym_warn_pragma, 7490), (sym_allow_pragma, 3140), (sym_test_pragma, 7490),
     (sym_once_pragma, 7490), (sym_must_call_pragma, 7490), (sym_export_pragma, 7490),
     (sym_pou_pragma, 7194), (sym_direct_variable, 7675), (sym_deref_expression, 2373),
     (sym_variable, 7599), (sym_var_access, 2373), (sym_in_out_decls, 3160), (sym_var_decls, 3160),
     (sym_retain_var_decls, 3160), (sym_temp_var_decls, 3160), (sym_external_var_decls, 3160),
     (sym_global_var_decls, 2947), (sym_loc_partly_var_decl, 3160), (sym__fb_variables, 588),
     (sym_fb_input_decls, 3160), (sym_fb_output_decls, 3160), (sym_no_retain_var_decls, 3160),
     (sym_fb_body, 10323), (sym_method_decl, 590), (sym_prog_access_decls, 3043), (sym_SFC, 7970),
     (sym_SFC_network, 7612), (sym_initial_step, 7439), (sym_config_init, 3047),
     (sym_using_directive, 237), (sym_variable_access, 7530), (sym_func_call, 2961),
     (sym_stmt_list, 7970), (sym__stmt, 2024), (sym_assign, 3150), (sym_if_stmt, 3150),
     (sym_case_stmt, 3150), (sym_for_stmt, 3150), (sym_while_stmt, 3150), (sym_repeat_stmt, 3150),
     (sym_raise_stmt, 3150), (sym_try_stmt, 3150), (sym_ERR_clause_outside_try, 3150),
     (sym_begin_path_expression, 2943), (sym_invocation, 2934), (sym_any_invocation, 2935),
     (sym_this_invocation, 2641), (sym_super_invocation, 2641), (sym_super_body_invocation, 2935),
     (sym_path_expression, 2627), (sym_field_expression, 2373), (sym_index_expression, 2373),
     (sym_ladder_diagram, 7970), (sym_fb_diagram, 7970),
     (aux_sym_ERR_fb_variables_after_method_repeat1, 588), (aux_sym_func_decl_repeat1, 7194),
     (aux_sym_func_decl_repeat2, 237), (aux_sym_fb_decl_repeat2, 2978),
     (aux_sym_fb_decl_repeat3, 590), (aux_sym_SFC_repeat1, 7612), (aux_sym_stmt_list_repeat1, 2024),
     (aux_sym_ladder_diagram_repeat1, 8009), (aux_sym_fb_diagram_repeat1, 8013),
     (sym_identifier, 298), (aux_sym_ERR_implements_before_extends_token1, 486),
     (aux_sym_ERR_unexpected_this_in_path_token1, 304),
     (aux_sym_ERR_unexpected_super_in_path_token1, 306), (sym_line_comment, 3),
     (anon_sym_LBRACE, 308), (aux_sym_test_pragma_token1, 9), (aux_sym_once_pragma_token1, 11),
     (aux_sym_must_call_pragma_token1, 13), (aux_sym_export_pragma_token1, 15),
     (anon_sym_SEMI, 310), (anon_sym_PERCENT, 312), (aux_sym_input_decls_token1, 314),
     (aux_sym_output_decls_token1, 316), (aux_sym_in_out_decls_token1, 318),
     (aux_sym_var_decls_token1, 320), (aux_sym_temp_var_decls_token1, 322),
     (aux_sym_external_var_decls_token1, 324), (aux_sym_global_var_decls_token1, 326),
     (aux_sym_fb_decl_token4, 498), (aux_sym_method_decl_token1, 330),
     (aux_sym_prog_access_decls_token1, 332), (aux_sym_initial_step_token1, 334),
     (aux_sym_config_init_token1, 336), (aux_sym_using_directive_token1, 338),
     (aux_sym__stmt_token1, 340), (aux_sym__stmt_token2, 340), (aux_sym__stmt_token3, 340),
     (aux_sym_if_stmt_token1, 342), (aux_sym_case_stmt_token1, 344), (aux_sym_for_stmt_token1, 346),
     (aux_sym_while_stmt_token1, 348), (aux_sym_repeat_stmt_token1, 350),
     (aux_sym_raise_stmt_token1, 352), (aux_sym_try_stmt_token1, 354),
     (aux_sym_try_stmt_token2, 356), (aux_sym_catch_clause_token1, 356),
     (aux_sym_finally_clause_token1, 356), (sym_ld_rung, 358), (sym_fbd_network, 360),
     (sym_c_style_comment, 3), (sym_pascal_style_comment, 3), (sym_pragma, 3)]"

lemma ts_parse_row_126_scan: "row_scan tokens_63_2 0 ts_parse_row_126 = Some (Suc (Suc (Suc (Suc 0))))"
  unfolding ts_parse_row_126_def by simp

text \<open>Lines 68782 to 68900.\<close>

definition ts_parse_row_127 :: parse_row where
  "ts_parse_row_127 =
    [(sym_ERR_implements_multiple_times, 2978), (sym_ERR_assign_func_call, 7530),
     (sym_ERR_unexpected_this_in_path, 2372), (sym_ERR_unexpected_super_in_path, 2372),
     (sym_ERR_fb_variables_after_method, 1502), (sym_ERR_var_access_not_allowed, 3160),
     (sym_ERR_var_config_not_allowed, 3160), (sym_ERR_var_global_not_allowed, 3160),
     (sym_ERR_method_decl_in_body, 3150), (sym_extern_pragma, 7490), (sym_wasm_pragma, 3150),
     (sym_warn_pragma, 7490), (sym_allow_pragma, 3140), (sym_test_pragma, 7490),
     (sym_once_pragma, 7490), (sym_must_call_pragma, 7490), (sym_export_pragma, 7490),
     (sym_pou_pragma, 7194), (sym_direct_variable, 7675), (sym_deref_expression, 2373),
     (sym_variable, 7599), (sym_var_access, 2373), (sym_in_out_decls, 3160), (sym_var_decls, 3160),
     (sym_retain_var_decls, 3160), (sym_temp_var_decls, 3160), (sym_external_var_decls, 3160),
     (sym_global_var_decls, 2947), (sym_loc_partly_var_decl, 3160), (sym__fb_variables, 552),
     (sym_fb_input_decls, 3160), (sym_fb_output_decls, 3160), (sym_no_retain_var_decls, 3160),
     (sym_fb_body, 10159), (sym_method_decl, 578), (sym_prog_access_decls, 3043), (sym_SFC, 7970),
     (sym_SFC_network, 7612), (sym_initial_step, 7439), (sym_config_init, 3047),
     (sym_using_directive, 285), (sym_variable_access, 7530), (sym_func_call, 2961),
     (sym_stmt_list, 7970), (sym__stmt, 2024), (sym_assign, 3150), (sym_if_stmt, 3150),
     (sym_case_stmt, 3150), (sym_for_stmt, 3150), (sym_while_stmt, 3150), (sym_repeat_stmt, 3150),
     (sym_raise_stmt, 3150), (sym_try_stmt, 3150), (sym_ERR_clause_outside_try, 3150),
     (sym_begin_path_expression, 2943), (sym_invocation, 2934), (sym_any_invocation, 2935),
     (sym_this_invocation, 2641), (sym_super_invocation, 2641), (sym_super_body_invocation, 2935),
     (sym_path_expression, 2627), (sym_field_expression, 2373), (sym_index_expression, 2373),
     (sym_ladder_diagram, 7970), (sym_fb_diagram, 7970),
     (aux_sym_ERR_fb_variables_after_method_repeat1, 552), (aux_sym_func_decl_repeat1, 7194),
     (aux_sym_func_decl_repeat2, 285), (aux_sym_fb_decl_repeat2, 2978),
     (aux_sym_fb_decl_repeat3, 578), (aux_sym_SFC_repeat1, 7612), (aux_sym_stmt_list_repeat1, 2024),
     (aux_sym_ladder_diagram_repeat1, 8009), (aux_sym_fb_diagram_repeat1, 8013),
     (sym_identifier, 298), (aux_sym_ERR_implements_before_extends_token1, 486),
     (aux_sym_ERR_unexpected_this_in_path_token1, 304),
     (aux_sym_ERR_unexpected_super_in_path_token1, 306), (sym_line_comment, 3),
     (anon_sym_LBRACE, 308), (aux_sym_test_pragma_token1, 9), (aux_sym_once_pragma_token1, 11),
     (aux_sym_must_call_pragma_token1, 13), (aux_sym_export_pragma_token1, 15),
     (anon_sym_SEMI, 310), (anon_sym_PERCENT, 312), (aux_sym_input_decls_token1, 314),
     (aux_sym_output_decls_token1, 316), (aux_sym_in_out_decls_token1, 318),
     (aux_sym_var_decls_token1, 320), (aux_sym_temp_var_decls_token1, 322),
     (aux_sym_external_var_decls_token1, 324), (aux_sym_global_var_decls_token1, 326),
     (aux_sym_fb_decl_token4, 500), (aux_sym_method_decl_token1, 330),
     (aux_sym_prog_access_decls_token1, 332), (aux_sym_initial_step_token1, 334),
     (aux_sym_config_init_token1, 336), (aux_sym_using_directive_token1, 338),
     (aux_sym__stmt_token1, 340), (aux_sym__stmt_token2, 340), (aux_sym__stmt_token3, 340),
     (aux_sym_if_stmt_token1, 342), (aux_sym_case_stmt_token1, 344), (aux_sym_for_stmt_token1, 346),
     (aux_sym_while_stmt_token1, 348), (aux_sym_repeat_stmt_token1, 350),
     (aux_sym_raise_stmt_token1, 352), (aux_sym_try_stmt_token1, 354),
     (aux_sym_try_stmt_token2, 356), (aux_sym_catch_clause_token1, 356),
     (aux_sym_finally_clause_token1, 356), (sym_ld_rung, 358), (sym_fbd_network, 360),
     (sym_c_style_comment, 3), (sym_pascal_style_comment, 3), (sym_pragma, 3)]"

lemma ts_parse_row_127_scan: "row_scan tokens_63_2 0 ts_parse_row_127 = Some (Suc (Suc (Suc (Suc 0))))"
  unfolding ts_parse_row_127_def by simp

text \<open>Lines 68901 to 69019.\<close>

definition ts_parse_row_128 :: parse_row where
  "ts_parse_row_128 =
    [(sym_ERR_implements_multiple_times, 151), (sym_ERR_assign_func_call, 7530),
     (sym_ERR_unexpected_this_in_path, 2372), (sym_ERR_unexpected_super_in_path, 2372),
     (sym_ERR_fb_variables_after_method, 1586), (sym_ERR_var_access_not_allowed, 3160),
     (sym_ERR_var_config_not_allowed, 3160), (sym_ERR_var_global_not_allowed, 3160),
     (sym_ERR_method_decl_in_body, 3150), (sym_extern_pragma, 7490), (sym_wasm_pragma, 3150),
     (sym_warn_pragma, 7490), (sym_allow_pragma, 3140), (sym_test_pragma, 7490),
     (sym_once_pragma, 7490), (sym_must_call_pragma, 7490), (sym_export_pragma, 7490),
     (sym_pou_pragma, 7194), (sym_direct_variable, 7675), (sym_deref_expression, 2373),
     (sym_variable, 7599), (sym_var_access, 2373), (sym_in_out_decls, 3160), (sym_var_decls, 3160),
     (sym_retain_var_decls, 3160), (sym_temp_var_decls, 3160), (sym_external_var_decls, 3160),
     (sym_global_var_decls, 2947), (sym_loc_partly_var_decl, 3160), (sym__fb_variables, 336),
     (sym_fb_input_decls, 3160), (sym_fb_output_decls, 3160), (sym_no_retain_var_decls, 3160),
     (sym_fb_body, 8750), (sym_method_decl, 339), (sym_prog_access_decls, 3043), (sym_SFC, 7970),
     (sym_SFC_network, 7612), (sym_initial_step, 7439), (sym_config_init, 3047),
     (sym_using_directive, 232), (sym_variable_access, 7530), (sym_func_call, 2961),
     (sym_stmt_list, 7970), (sym__stmt, 2024), (sym_assign, 3150), (sym_if_stmt, 3150),
     (sym_case_stmt, 3150), (sym_for_stmt, 3150), (sym_while_stmt, 3150), (sym_repeat_stmt, 3150),
     (sym_raise_stmt, 3150), (sym_try_stmt, 3150), (sym_ERR_clause_outside_try, 3150),
     (sym_begin_path_expression, 2943), (sym_invocation, 2934), (sym_any_invocation, 2935),
     (sym_this_invocation, 2641), (sym_super_invocation, 2641), (sym_super_body_invocation, 2935),
     (sym_path_expression, 2627), (sym_field_expression, 2373), (sym_index_expression, 2373),
     (sym_ladder_diagram, 7970), (sym_fb_diagram, 7970),
     (aux_sym_ERR_fb_variables_after_method_repeat1, 336), (aux_sym_func_decl_repeat1, 7194),
     (aux_sym_func_decl_repeat2, 232), (aux_sym_fb_decl_repeat2, 151),
     (aux_sym_fb_decl_repeat3, 339), (aux_sym_SFC_repeat1, 7612), (aux_sym_stmt_list_repeat1, 2024),
     (aux_sym_ladder_diagram_repeat1, 8009), (aux_sym_fb_diagram_repeat1, 8013),
     (sym_identifier, 298), (aux_sym_ERR_implements_before_extends_token1, 486),
     (aux_sym_ERR_unexpected_this_in_path_token1, 304),
     (aux_sym_ERR_unexpected_super_in_path_token1, 306), (sym_line_comment, 3),
     (anon_sym_LBRACE, 308), (aux_sym_test_pragma_token1, 9), (aux_sym_once_pragma_token1, 11),
     (aux_sym_must_call_pragma_token1, 13), (aux_sym_export_pragma_token1, 15),
     (anon_sym_SEMI, 310), (anon_sym_PERCENT, 312), (aux_sym_input_decls_token1, 314),
     (aux_sym_output_decls_token1, 316), (aux_sym_in_out_decls_token1, 318),
     (aux_sym_var_decls_token1, 320), (aux_sym_temp_var_decls_token1, 322),
     (aux_sym_external_var_decls_token1, 324), (aux_sym_global_var_decls_token1, 326),
     (aux_sym_fb_decl_token4, 502), (aux_sym_method_decl_token1, 330),
     (aux_sym_prog_access_decls_token1, 332), (aux_sym_initial_step_token1, 334),
     (aux_sym_config_init_token1, 336), (aux_sym_using_directive_token1, 338),
     (aux_sym__stmt_token1, 340), (aux_sym__stmt_token2, 340), (aux_sym__stmt_token3, 340),
     (aux_sym_if_stmt_token1, 342), (aux_sym_case_stmt_token1, 344), (aux_sym_for_stmt_token1, 346),
     (aux_sym_while_stmt_token1, 348), (aux_sym_repeat_stmt_token1, 350),
     (aux_sym_raise_stmt_token1, 352), (aux_sym_try_stmt_token1, 354),
     (aux_sym_try_stmt_token2, 356), (aux_sym_catch_clause_token1, 356),
     (aux_sym_finally_clause_token1, 356), (sym_ld_rung, 358), (sym_fbd_network, 360),
     (sym_c_style_comment, 3), (sym_pascal_style_comment, 3), (sym_pragma, 3)]"

lemma ts_parse_row_128_scan: "row_scan tokens_63_2 0 ts_parse_row_128 = Some (Suc (Suc (Suc (Suc 0))))"
  unfolding ts_parse_row_128_def by simp

text \<open>Lines 69020 to 69138.\<close>

definition ts_parse_row_129 :: parse_row where
  "ts_parse_row_129 =
    [(sym_ERR_implements_multiple_times, 2978), (sym_ERR_assign_func_call, 7530),
     (sym_ERR_unexpected_this_in_path, 2372), (sym_ERR_unexpected_super_in_path, 2372),
     (sym_ERR_fb_variables_after_method, 1625), (sym_ERR_var_access_not_allowed, 3160),
     (sym_ERR_var_config_not_allowed, 3160), (sym_ERR_var_global_not_allowed, 3160),
     (sym_ERR_method_decl_in_body, 3150), (sym_extern_pragma, 7490), (sym_wasm_pragma, 3150),
     (sym_warn_pragma, 7490), (sym_allow_pragma, 3140), (sym_test_pragma, 7490),
     (sym_once_pragma, 7490), (sym_must_call_pragma, 7490), (sym_export_pragma, 7490),
     (sym_pou_pragma, 7194), (sym_direct_variable, 7675), (sym_deref_expression, 2373),
     (sym_variable, 7599), (sym_var_access, 2373), (sym_in_out_decls, 3160), (sym_var_decls, 3160),
     (sym_retain_var_decls, 3160), (sym_temp_var_decls, 3160), (sym_external_var_decls, 3160),
     (sym_global_var_decls, 2947), (sym_loc_partly_var_decl, 3160), (sym__fb_variables, 345),
     (sym_fb_input_decls, 3160), (sym_fb_output_decls, 3160), (sym_no_retain_var_decls, 3160),
     (sym_fb_body, 8805), (sym_method_decl, 347), (sym_prog_access_decls, 3043), (sym_SFC, 7970),
     (sym_SFC_network, 7612), (sym_initial_step, 7439), (sym_config_init, 3047),
     (sym_using_directive, 239), (sym_variable_access, 7530), (sym_func_call, 2961),
     (sym_stmt_list, 7970), (sym__stmt, 2024), (sym_assign, 3150), (sym_if_stmt, 3150),
     (sym_case_stmt, 3150), (sym_for_stmt, 3150), (sym_while_stmt, 3150), (sym_repeat_stmt, 3150),
     (sym_raise_stmt, 3150), (sym_try_stmt, 3150), (sym_ERR_clause_outside_try, 3150),
     (sym_begin_path_expression, 2943), (sym_invocation, 2934), (sym_any_invocation, 2935),
     (sym_this_invocation, 2641), (sym_super_invocation, 2641), (sym_super_body_invocation, 2935),
     (sym_path_expression, 2627), (sym_field_expression, 2373), (sym_index_expression, 2373),
     (sym_ladder_diagram, 7970), (sym_fb_diagram, 7970),
     (aux_sym_ERR_fb_variables_after_method_repeat1, 345), (aux_sym_func_decl_repeat1, 7194),
     (aux_sym_func_decl_repeat2, 239), (aux_sym_fb_decl_repeat2, 2978),
     (aux_sym_fb_decl_repeat3, 347), (aux_sym_SFC_repeat1, 7612), (aux_sym_stmt_list_repeat1, 2024),
     (aux_sym_ladder_diagram_repeat1, 8009), (aux_sym_fb_diagram_repeat1, 8013),
     (sym_identifier, 298), (aux_sym_ERR_implements_before_extends_token1, 486),
     (aux_sym_ERR_unexpected_this_in_path_token1, 304),
     (aux_sym_ERR_unexpected_super_in_path_token1, 306), (sym_line_comment, 3),
     (anon_sym_LBRACE, 308), (aux_sym_test_pragma_token1, 9), (aux_sym_once_pragma_token1, 11),
     (aux_sym_must_call_pragma_token1, 13), (aux_sym_export_pragma_token1, 15),
     (anon_sym_SEMI, 310), (anon_sym_PERCENT, 312), (aux_sym_input_decls_token1, 314),
     (aux_sym_output_decls_token1, 316), (aux_sym_in_out_decls_token1, 318),
     (aux_sym_var_decls_token1, 320), (aux_sym_temp_var_decls_token1, 322),
     (aux_sym_external_var_decls_token1, 324), (aux_sym_global_var_decls_token1, 326),
     (aux_sym_fb_decl_token4, 504), (aux_sym_method_decl_token1, 330),
     (aux_sym_prog_access_decls_token1, 332), (aux_sym_initial_step_token1, 334),
     (aux_sym_config_init_token1, 336), (aux_sym_using_directive_token1, 338),
     (aux_sym__stmt_token1, 340), (aux_sym__stmt_token2, 340), (aux_sym__stmt_token3, 340),
     (aux_sym_if_stmt_token1, 342), (aux_sym_case_stmt_token1, 344), (aux_sym_for_stmt_token1, 346),
     (aux_sym_while_stmt_token1, 348), (aux_sym_repeat_stmt_token1, 350),
     (aux_sym_raise_stmt_token1, 352), (aux_sym_try_stmt_token1, 354),
     (aux_sym_try_stmt_token2, 356), (aux_sym_catch_clause_token1, 356),
     (aux_sym_finally_clause_token1, 356), (sym_ld_rung, 358), (sym_fbd_network, 360),
     (sym_c_style_comment, 3), (sym_pascal_style_comment, 3), (sym_pragma, 3)]"

lemma ts_parse_row_129_scan: "row_scan tokens_63_2 0 ts_parse_row_129 = Some (Suc (Suc (Suc (Suc 0))))"
  unfolding ts_parse_row_129_def by simp

text \<open>Lines 69139 to 69257.\<close>

definition ts_parse_row_130 :: parse_row where
  "ts_parse_row_130 =
    [(sym_ERR_implements_multiple_times, 2978), (sym_ERR_assign_func_call, 7530),
     (sym_ERR_unexpected_this_in_path, 2372), (sym_ERR_unexpected_super_in_path, 2372),
     (sym_ERR_fb_variables_after_method, 1641), (sym_ERR_var_access_not_allowed, 3160),
     (sym_ERR_var_config_not_allowed, 3160), (sym_ERR_var_global_not_allowed, 3160),
     (sym_ERR_method_decl_in_body, 3150), (sym_extern_pragma, 7490), (sym_wasm_pragma, 3150),
     (sym_warn_pragma, 7490), (sym_allow_pragma, 3140), (sym_test_pragma, 7490),
     (sym_once_pragma, 7490), (sym_must_call_pragma, 7490), (sym_export_pragma, 7490),
     (sym_pou_pragma, 7194), (sym_direct_variable, 7675), (sym_deref_expression, 2373),
     (sym_variable, 7599), (sym_var_access, 2373), (sym_in_out_decls, 3160), (sym_var_decls, 3160),
     (sym_retain_var_decls, 3160), (sym_temp_var_decls, 3160), (sym_external_var_decls, 3160),
     (sym_global_var_decls, 2947), (sym_loc_partly_var_decl, 3160), (sym__fb_variables, 351),
     (sym_fb_input_decls, 3160), (sym_fb_output_decls, 3160), (sym_no_retain_var_decls, 3160),
     (sym_fb_body, 8859), (sym_method_decl, 353), (sym_prog_access_decls, 3043), (sym_SFC, 7970),
     (sym_SFC_network, 7612), (sym_initial_step, 7439), (sym_config_init, 3047),
     (sym_using_directive, 241), (sym_variable_access, 7530), (sym_func_call, 2961),
     (sym_stmt_list, 7970), (sym__stmt, 2024), (sym_assign, 3150), (sym_if_stmt, 3150),
     (sym_case_stmt, 3150), (sym_for_stmt, 3150), (sym_while_stmt, 3150), (sym_repeat_stmt, 3150),
     (sym_raise_stmt, 3150), (sym_try_stmt, 3150), (sym_ERR_clause_outside_try, 3150),
     (sym_begin_path_expression, 2943), (sym_invocation, 2934), (sym_any_invocation, 2935),
     (sym_this_invocation, 2641), (sym_super_invocation, 2641), (sym_super_body_invocation, 2935),
     (sym_path_expression, 2627), (sym_field_expression, 2373), (sym_index_expression, 2373),
     (sym_ladder_diagram, 7970), (sym_fb_diagram, 7970),
     (aux_sym_ERR_fb_variables_after_method_repeat1, 351), (aux_sym_func_decl_repeat1, 7194),
     (aux_sym_func_decl_repeat2, 241), (aux_sym_fb_decl_repeat2, 2978),
     (aux_sym_fb_decl_repeat3, 353), (aux_sym_SFC_repeat1, 7612), (aux_sym_stmt_list_repeat1, 2024),
     (aux_sym_ladder_diagram_repeat1, 8009), (aux_sym_fb_diagram_repeat1, 8013),
     (sym_identifier, 298), (aux_sym_ERR_implements_before_extends_token1, 486),
     (aux_sym_ERR_unexpected_this_in_path_token1, 304),
     (aux_sym_ERR_unexpected_super_in_path_token1, 306), (sym_line_comment, 3),
     (anon_sym_LBRACE, 308), (aux_sym_test_pragma_token1, 9), (aux_sym_once_pragma_token1, 11),
     (aux_sym_must_call_pragma_token1, 13), (aux_sym_export_pragma_token1, 15),
     (anon_sym_SEMI, 310), (anon_sym_PERCENT, 312), (aux_sym_input_decls_token1, 314),
     (aux_sym_output_decls_token1, 316), (aux_sym_in_out_decls_token1, 318),
     (aux_sym_var_decls_token1, 320), (aux_sym_temp_var_decls_token1, 322),
     (aux_sym_external_var_decls_token1, 324), (aux_sym_global_var_decls_token1, 326),
     (aux_sym_fb_decl_token4, 506), (aux_sym_method_decl_token1, 330),
     (aux_sym_prog_access_decls_token1, 332), (aux_sym_initial_step_token1, 334),
     (aux_sym_config_init_token1, 336), (aux_sym_using_directive_token1, 338),
     (aux_sym__stmt_token1, 340), (aux_sym__stmt_token2, 340), (aux_sym__stmt_token3, 340),
     (aux_sym_if_stmt_token1, 342), (aux_sym_case_stmt_token1, 344), (aux_sym_for_stmt_token1, 346),
     (aux_sym_while_stmt_token1, 348), (aux_sym_repeat_stmt_token1, 350),
     (aux_sym_raise_stmt_token1, 352), (aux_sym_try_stmt_token1, 354),
     (aux_sym_try_stmt_token2, 356), (aux_sym_catch_clause_token1, 356),
     (aux_sym_finally_clause_token1, 356), (sym_ld_rung, 358), (sym_fbd_network, 360),
     (sym_c_style_comment, 3), (sym_pascal_style_comment, 3), (sym_pragma, 3)]"

lemma ts_parse_row_130_scan: "row_scan tokens_63_2 0 ts_parse_row_130 = Some (Suc (Suc (Suc (Suc 0))))"
  unfolding ts_parse_row_130_def by simp

text \<open>Lines 69258 to 69376.\<close>

definition ts_parse_row_131 :: parse_row where
  "ts_parse_row_131 =
    [(sym_ERR_implements_multiple_times, 134), (sym_ERR_assign_func_call, 7530),
     (sym_ERR_unexpected_this_in_path, 2372), (sym_ERR_unexpected_super_in_path, 2372),
     (sym_ERR_fb_variables_after_method, 1264), (sym_ERR_var_access_not_allowed, 3160),
     (sym_ERR_var_config_not_allowed, 3160), (sym_ERR_var_global_not_allowed, 3160),
     (sym_ERR_method_decl_in_body, 3150), (sym_extern_pragma, 7490), (sym_wasm_pragma, 3150),
     (sym_warn_pragma, 7490), (sym_allow_pragma, 3140), (sym_test_pragma, 7490),
     (sym_once_pragma, 7490), (sym_must_call_pragma, 7490), (sym_export_pragma, 7490),
     (sym_pou_pragma, 7194), (sym_direct_variable, 7675), (sym_deref_expression, 2373),
     (sym_variable, 7599), (sym_var_access, 2373), (sym_in_out_decls, 3160), (sym_var_decls, 3160),
     (sym_retain_var_decls, 3160), (sym_temp_var_decls, 3160), (sym_external_var_decls, 3160),
     (sym_global_var_decls, 2947), (sym_loc_partly_var_decl, 3160), (sym__fb_variables, 608),
     (sym_fb_input_decls, 3160), (sym_fb_output_decls, 3160), (sym_no_retain_var_decls, 3160),
     (sym_fb_body, 9617), (sym_method_decl, 622), (sym_prog_access_decls, 3043), (sym_SFC, 7970),
     (sym_SFC_network, 7612), (sym_initial_step, 7439), (sym_config_init, 3047),
     (sym_using_directive, 249), (sym_variable_access, 7530), (sym_func_call, 2961),
     (sym_stmt_list, 7970), (sym__stmt, 2024), (sym_assign, 3150), (sym_if_stmt, 3150),
     (sym_case_stmt, 3150), (sym_for_stmt, 3150), (sym_while_stmt, 3150), (sym_repeat_stmt, 3150),
     (sym_raise_stmt, 3150), (sym_try_stmt, 3150), (sym_ERR_clause_outside_try, 3150),
     (sym_begin_path_expression, 2943), (sym_invocation, 2934), (sym_any_invocation, 2935),
     (sym_this_invocation, 2641), (sym_super_invocation, 2641), (sym_super_body_invocation, 2935),
     (sym_path_expression, 2627), (sym_field_expression, 2373), (sym_index_expression, 2373),
     (sym_ladder_diagram, 7970), (sym_fb_diagram, 7970),
     (aux_sym_ERR_fb_variables_after_method_repeat1, 608), (aux_sym_func_decl_repeat1, 7194),
     (aux_sym_func_decl_repeat2, 249), (aux_sym_fb_decl_repeat2, 134),
     (aux_sym_fb_decl_repeat3, 622), (aux_sym_SFC_repeat1, 7612), (aux_sym_stmt_list_repeat1, 2024),
     (aux_sym_ladder_diagram_repeat1, 8009), (aux_sym_fb_diagram_repeat1, 8013),
     (sym_identifier, 298), (aux_sym_ERR_implements_before_extends_token1, 486),
     (aux_sym_ERR_unexpected_this_in_path_token1, 304),
     (aux_sym_ERR_unexpected_super_in_path_token1, 306), (sym_line_comment, 3),
     (anon_sym_LBRACE, 308), (aux_sym_test_pragma_token1, 9), (aux_sym_once_pragma_token1, 11),
     (aux_sym_must_call_pragma_token1, 13), (aux_sym_export_pragma_token1, 15),
     (anon_sym_SEMI, 310), (anon_sym_PERCENT, 312), (aux_sym_input_decls_token1, 314),
     (aux_sym_output_decls_token1, 316), (aux_sym_in_out_decls_token1, 318),
     (aux_sym_var_decls_token1, 320), (aux_sym_temp_var_decls_token1, 322),
     (aux_sym_external_var_decls_token1, 324), (aux_sym_global_var_decls_token1, 326),
     (aux_sym_fb_decl_token4, 508), (aux_sym_method_decl_token1, 330),
     (aux_sym_prog_access_decls_token1, 332), (aux_sym_initial_step_token1, 334),
     (aux_sym_config_init_token1, 336), (aux_sym_using_directive_token1, 338),
     (aux_sym__stmt_token1, 340), (aux_sym__stmt_token2, 340), (aux_sym__stmt_token3, 340),
     (aux_sym_if_stmt_token1, 342), (aux_sym_case_stmt_token1, 344), (aux_sym_for_stmt_token1, 346),
     (aux_sym_while_stmt_token1, 348), (aux_sym_repeat_stmt_token1, 350),
     (aux_sym_raise_stmt_token1, 352), (aux_sym_try_stmt_token1, 354),
     (aux_sym_try_stmt_token2, 356), (aux_sym_catch_clause_token1, 356),
     (aux_sym_finally_clause_token1, 356), (sym_ld_rung, 358), (sym_fbd_network, 360),
     (sym_c_style_comment, 3), (sym_pascal_style_comment, 3), (sym_pragma, 3)]"

lemma ts_parse_row_131_scan: "row_scan tokens_63_2 0 ts_parse_row_131 = Some (Suc (Suc (Suc (Suc 0))))"
  unfolding ts_parse_row_131_def by simp

text \<open>Lines 69377 to 69495.\<close>

definition ts_parse_row_132 :: parse_row where
  "ts_parse_row_132 =
    [(sym_ERR_implements_multiple_times, 2978), (sym_ERR_assign_func_call, 7530),
     (sym_ERR_unexpected_this_in_path, 2372), (sym_ERR_unexpected_super_in_path, 2372),
     (sym_ERR_fb_variables_after_method, 1660), (sym_ERR_var_access_not_allowed, 3160),
     (sym_ERR_var_config_not_allowed, 3160), (sym_ERR_var_global_not_allowed, 3160),
     (sym_ERR_method_decl_in_body, 3150), (sym_extern_pragma, 7490), (sym_wasm_pragma, 3150),
     (sym_warn_pragma, 7490), (sym_allow_pragma, 3140), (sym_test_pragma, 7490),
     (sym_once_pragma, 7490), (sym_must_call_pragma, 7490), (sym_export_pragma, 7490),
     (sym_pou_pragma, 7194), (sym_direct_variable, 7675), (sym_deref_expression, 2373),
     (sym_variable, 7599), (sym_var_access, 2373), (sym_in_out_decls, 3160), (sym_var_decls, 3160),
     (sym_retain_var_decls, 3160), (sym_temp_var_decls, 3160), (sym_external_var_decls, 3160),
     (sym_global_var_decls, 2947), (sym_loc_partly_var_decl, 3160), (sym__fb_variables, 358),
     (sym_fb_input_decls, 3160), (sym_fb_output_decls, 3160), (sym_no_retain_var_decls, 3160),
     (sym_fb_body, 8919), (sym_method_decl, 361), (sym_prog_access_decls, 3043), (sym_SFC, 7970),
     (sym_SFC_network, 7612), (sym_initial_step, 7439), (sym_config_init, 3047),
     (sym_using_directive, 245), (sym_variable_access, 7530), (sym_func_call, 2961),
     (sym_stmt_list, 7970), (sym__stmt, 2024), (sym_assign, 3150), (sym_if_stmt, 3150),
     (sym_case_stmt, 3150), (sym_for_stmt, 3150), (sym_while_stmt, 3150), (sym_repeat_stmt, 3150),
     (sym_raise_stmt, 3150), (sym_try_stmt, 3150), (sym_ERR_clause_outside_try, 3150),
     (sym_begin_path_expression, 2943), (sym_invocation, 2934), (sym_any_invocation, 2935),
     (sym_this_invocation, 2641), (sym_super_invocation, 2641), (sym_super_body_invocation, 2935),
     (sym_path_expression, 2627), (sym_field_expression, 2373), (sym_index_expression, 2373),
     (sym_ladder_diagram, 7970), (sym_fb_diagram, 7970),
     (aux_sym_ERR_fb_variables_after_method_repeat1, 358), (aux_sym_func_decl_repeat1, 7194),
     (aux_sym_func_decl_repeat2, 245), (aux_sym_fb_decl_repeat2, 2978),
     (aux_sym_fb_decl_repeat3, 361), (aux_sym_SFC_repeat1, 7612), (aux_sym_stmt_list_repeat1, 2024),
     (aux_sym_ladder_diagram_repeat1, 8009), (aux_sym_fb_diagram_repeat1, 8013),
     (sym_identifier, 298), (aux_sym_ERR_implements_before_extends_token1, 486),
     (aux_sym_ERR_unexpected_this_in_path_token1, 304),
     (aux_sym_ERR_unexpected_super_in_path_token1, 306), (sym_line_comment, 3),
     (anon_sym_LBRACE, 308), (aux_sym_test_pragma_token1, 9), (aux_sym_once_pragma_token1, 11),
     (aux_sym_must_call_pragma_token1, 13), (aux_sym_export_pragma_token1, 15),
     (anon_sym_SEMI, 310), (anon_sym_PERCENT, 312), (aux_sym_input_decls_token1, 314),
     (aux_sym_output_decls_token1, 316), (aux_sym_in_out_decls_token1, 318),
     (aux_sym_var_decls_token1, 320), (aux_sym_temp_var_decls_token1, 322),
     (aux_sym_external_var_decls_token1, 324), (aux_sym_global_var_decls_token1, 326),
     (aux_sym_fb_decl_token4, 414), (aux_sym_method_decl_token1, 330),
     (aux_sym_prog_access_decls_token1, 332), (aux_sym_initial_step_token1, 334),
     (aux_sym_config_init_token1, 336), (aux_sym_using_directive_token1, 338),
     (aux_sym__stmt_token1, 340), (aux_sym__stmt_token2, 340), (aux_sym__stmt_token3, 340),
     (aux_sym_if_stmt_token1, 342), (aux_sym_case_stmt_token1, 344), (aux_sym_for_stmt_token1, 346),
     (aux_sym_while_stmt_token1, 348), (aux_sym_repeat_stmt_token1, 350),
     (aux_sym_raise_stmt_token1, 352), (aux_sym_try_stmt_token1, 354),
     (aux_sym_try_stmt_token2, 356), (aux_sym_catch_clause_token1, 356),
     (aux_sym_finally_clause_token1, 356), (sym_ld_rung, 358), (sym_fbd_network, 360),
     (sym_c_style_comment, 3), (sym_pascal_style_comment, 3), (sym_pragma, 3)]"

lemma ts_parse_row_132_scan: "row_scan tokens_63_2 0 ts_parse_row_132 = Some (Suc (Suc (Suc (Suc 0))))"
  unfolding ts_parse_row_132_def by simp

text \<open>Lines 69496 to 69614.\<close>

definition ts_parse_row_133 :: parse_row where
  "ts_parse_row_133 =
    [(sym_ERR_implements_multiple_times, 155), (sym_ERR_assign_func_call, 7530),
     (sym_ERR_unexpected_this_in_path, 2372), (sym_ERR_unexpected_super_in_path, 2372),
     (sym_ERR_fb_variables_after_method, 1672), (sym_ERR_var_access_not_allowed, 3160),
     (sym_ERR_var_config_not_allowed, 3160), (sym_ERR_var_global_not_allowed, 3160),
     (sym_ERR_method_decl_in_body, 3150), (sym_extern_pragma, 7490), (sym_wasm_pragma, 3150),
     (sym_warn_pragma, 7490), (sym_allow_pragma, 3140), (sym_test_pragma, 7490),
     (sym_once_pragma, 7490), (sym_must_call_pragma, 7490), (sym_export_pragma, 7490),
     (sym_pou_pragma, 7194), (sym_direct_variable, 7675), (sym_deref_expression, 2373),
     (sym_variable, 7599), (sym_var_access, 2373), (sym_in_out_decls, 3160), (sym_var_decls, 3160),
     (sym_retain_var_decls, 3160), (sym_temp_var_decls, 3160), (sym_external_var_decls, 3160),
     (sym_global_var_decls, 2947), (sym_loc_partly_var_decl, 3160), (sym__fb_variables, 362),
     (sym_fb_input_decls, 3160), (sym_fb_output_decls, 3160), (sym_no_retain_var_decls, 3160),
     (sym_fb_body, 9002), (sym_method_decl, 365), (sym_prog_access_decls, 3043), (sym_SFC, 7970),
     (sym_SFC_network, 7612), (sym_initial_step, 7439), (sym_config_init, 3047),
     (sym_using_directive, 251), (sym_variable_access, 7530), (sym_func_call, 2961),
     (sym_stmt_list, 7970), (sym__stmt, 2024), (sym_assign, 3150), (sym_if_stmt, 3150),
     (sym_case_stmt, 3150), (sym_for_stmt, 3150), (sym_while_stmt, 3150), (sym_repeat_stmt, 3150),
     (sym_raise_stmt, 3150), (sym_try_stmt, 3150), (sym_ERR_clause_outside_try, 3150),
     (sym_begin_path_expression, 2943), (sym_invocation, 2934), (sym_any_invocation, 2935),
     (sym_this_invocation, 2641), (sym_super_invocation, 2641), (sym_super_body_invocation, 2935),
     (sym_path_expression, 2627), (sym_field_expression, 2373), (sym_index_expression, 2373),
     (sym_ladder_diagram, 7970), (sym_fb_diagram, 7970),
     (aux_sym_ERR_fb_variables_after_method_repeat1, 362), (aux_sym_func_decl_repeat1, 7194),
     (aux_sym_func_decl_repeat2, 251), (aux_sym_fb_decl_repeat2, 155),
     (aux_sym_fb_decl_repeat3, 365), (aux_sym_SFC_repeat1, 7612), (aux_sym_stmt_list_repeat1, 2024),
     (aux_sym_ladder_diagram_repeat1, 8009), (aux_sym_fb_diagram_repeat1, 8013),
     (sym_identifier, 298), (aux_sym_ERR_implements_before_extends_token1, 486),
     (aux_sym_ERR_unexpected_this_in_path_token1, 304),
     (aux_sym_ERR_unexpected_super_in_path_token1, 306), (sym_line_comment, 3),
     (anon_sym_LBRACE, 308), (aux_sym_test_pragma_token1, 9), (aux_sym_once_pragma_token1, 11),
     (aux_sym_must_call_pragma_token1, 13), (aux_sym_export_pragma_token1, 15),
     (anon_sym_SEMI, 310), (anon_sym_PERCENT, 312), (aux_sym_input_decls_token1, 314),
     (aux_sym_output_decls_token1, 316), (aux_sym_in_out_decls_token1, 318),
     (aux_sym_var_decls_token1, 320), (aux_sym_temp_var_decls_token1, 322),
     (aux_sym_external_var_decls_token1, 324), (aux_sym_global_var_decls_token1, 326),
     (aux_sym_fb_decl_token4, 510), (aux_sym_method_decl_token1, 330),
     (aux_sym_prog_access_decls_token1, 332), (aux_sym_initial_step_token1, 334),
     (aux_sym_config_init_token1, 336), (aux_sym_using_directive_token1, 338),
     (aux_sym__stmt_token1, 340), (aux_sym__stmt_token2, 340), (aux_sym__stmt_token3, 340),
     (aux_sym_if_stmt_token1, 342), (aux_sym_case_stmt_token1, 344), (aux_sym_for_stmt_token1, 346),
     (aux_sym_while_stmt_token1, 348), (aux_sym_repeat_stmt_token1, 350),
     (aux_sym_raise_stmt_token1, 352), (aux_sym_try_stmt_token1, 354),
     (aux_sym_try_stmt_token2, 356), (aux_sym_catch_clause_token1, 356),
     (aux_sym_finally_clause_token1, 356), (sym_ld_rung, 358), (sym_fbd_network, 360),
     (sym_c_style_comment, 3), (sym_pascal_style_comment, 3), (sym_pragma, 3)]"

lemma ts_parse_row_133_scan: "row_scan tokens_63_2 0 ts_parse_row_133 = Some (Suc (Suc (Suc (Suc 0))))"
  unfolding ts_parse_row_133_def by simp

text \<open>Lines 69615 to 69733.\<close>

definition ts_parse_row_134 :: parse_row where
  "ts_parse_row_134 =
    [(sym_ERR_implements_multiple_times, 2978), (sym_ERR_assign_func_call, 7530),
     (sym_ERR_unexpected_this_in_path, 2372), (sym_ERR_unexpected_super_in_path, 2372),
     (sym_ERR_fb_variables_after_method, 1734), (sym_ERR_var_access_not_allowed, 3160),
     (sym_ERR_var_config_not_allowed, 3160), (sym_ERR_var_global_not_allowed, 3160),
     (sym_ERR_method_decl_in_body, 3150), (sym_extern_pragma, 7490), (sym_wasm_pragma, 3150),
     (sym_warn_pragma, 7490), (sym_allow_pragma, 3140), (sym_test_pragma, 7490),
     (sym_once_pragma, 7490), (sym_must_call_pragma, 7490), (sym_export_pragma, 7490),
     (sym_pou_pragma, 7194), (sym_direct_variable, 7675), (sym_deref_expression, 2373),
     (sym_variable, 7599), (sym_var_access, 2373), (sym_in_out_decls, 3160), (sym_var_decls, 3160),
     (sym_retain_var_decls, 3160), (sym_temp_var_decls, 3160), (sym_external_var_decls, 3160),
     (sym_global_var_decls, 2947), (sym_loc_partly_var_decl, 3160), (sym__fb_variables, 374),
     (sym_fb_input_decls, 3160), (sym_fb_output_decls, 3160), (sym_no_retain_var_decls, 3160),
     (sym_fb_body, 9220), (sym_method_decl, 376), (sym_prog_access_decls, 3043), (sym_SFC, 7970),
     (sym_SFC_network, 7612), (sym_initial_step, 7439), (sym_config_init, 3047),
     (sym_using_directive, 256), (sym_variable_access, 7530), (sym_func_call, 2961),
     (sym_stmt_list, 7970), (sym__stmt, 2024), (sym_assign, 3150), (sym_if_stmt, 3150),
     (sym_case_stmt, 3150), (sym_for_stmt, 3150), (sym_while_stmt, 3150), (sym_repeat_stmt, 3150),
     (sym_raise_stmt, 3150), (sym_try_stmt, 3150), (sym_ERR_clause_outside_try, 3150),
     (sym_begin_path_expression, 2943), (sym_invocation, 2934), (sym_any_invocation, 2935),
     (sym_this_invocation, 2641), (sym_super_invocation, 2641), (sym_super_body_invocation, 2935),
     (sym_path_expression, 2627), (sym_field_expression, 2373), (sym_index_expression, 2373),
     (sym_ladder_diagram, 7970), (sym_fb_diagram, 7970),
     (aux_sym_ERR_fb_variables_after_method_repeat1, 374), (aux_sym_func_decl_repeat1, 7194),
     (aux_sym_func_decl_repeat2, 256), (aux_sym_fb_decl_repeat2, 2978),
     (aux_sym_fb_decl_repeat3, 376), (aux_sym_SFC_repeat1, 7612), (aux_sym_stmt_list_repeat1, 2024),
     (aux_sym_ladder_diagram_repeat1, 8009), (aux_sym_fb_diagram_repeat1, 8013),
     (sym_identifier, 298), (aux_sym_ERR_implements_before_extends_token1, 486),
     (aux_sym_ERR_unexpected_this_in_path_token1, 304),
     (aux_sym_ERR_unexpected_super_in_path_token1, 306), (sym_line_comment, 3),
     (anon_sym_LBRACE, 308), (aux_sym_test_pragma_token1, 9), (aux_sym_once_pragma_token1, 11),
     (aux_sym_must_call_pragma_token1, 13), (aux_sym_export_pragma_token1, 15),
     (anon_sym_SEMI, 310), (anon_sym_PERCENT, 312), (aux_sym_input_decls_token1, 314),
     (aux_sym_output_decls_token1, 316), (aux_sym_in_out_decls_token1, 318),
     (aux_sym_var_decls_token1, 320), (aux_sym_temp_var_decls_token1, 322),
     (aux_sym_external_var_decls_token1, 324), (aux_sym_global_var_decls_token1, 326),
     (aux_sym_fb_decl_token4, 512), (aux_sym_method_decl_token1, 330),
     (aux_sym_prog_access_decls_token1, 332), (aux_sym_initial_step_token1, 334),
     (aux_sym_config_init_token1, 336), (aux_sym_using_directive_token1, 338),
     (aux_sym__stmt_token1, 340), (aux_sym__stmt_token2, 340), (aux_sym__stmt_token3, 340),
     (aux_sym_if_stmt_token1, 342), (aux_sym_case_stmt_token1, 344), (aux_sym_for_stmt_token1, 346),
     (aux_sym_while_stmt_token1, 348), (aux_sym_repeat_stmt_token1, 350),
     (aux_sym_raise_stmt_token1, 352), (aux_sym_try_stmt_token1, 354),
     (aux_sym_try_stmt_token2, 356), (aux_sym_catch_clause_token1, 356),
     (aux_sym_finally_clause_token1, 356), (sym_ld_rung, 358), (sym_fbd_network, 360),
     (sym_c_style_comment, 3), (sym_pascal_style_comment, 3), (sym_pragma, 3)]"

lemma ts_parse_row_134_scan: "row_scan tokens_63_2 0 ts_parse_row_134 = Some (Suc (Suc (Suc (Suc 0))))"
  unfolding ts_parse_row_134_def by simp

text \<open>Lines 69734 to 69852.\<close>

definition ts_parse_row_135 :: parse_row where
  "ts_parse_row_135 =
    [(sym_ERR_implements_multiple_times, 156), (sym_ERR_assign_func_call, 7530),
     (sym_ERR_unexpected_this_in_path, 2372), (sym_ERR_unexpected_super_in_path, 2372),
     (sym_ERR_fb_variables_after_method, 1755), (sym_ERR_var_access_not_allowed, 3160),
     (sym_ERR_var_config_not_allowed, 3160), (sym_ERR_var_global_not_allowed, 3160),
     (sym_ERR_method_decl_in_body, 3150), (sym_extern_pragma, 7490), (sym_wasm_pragma, 3150),
     (sym_warn_pragma, 7490), (sym_allow_pragma, 3140), (sym_test_pragma, 7490),
     (sym_once_pragma, 7490), (sym_must_call_pragma, 7490), (sym_export_pragma, 7490),
     (sym_pou_pragma, 7194), (sym_direct_variable, 7675), (sym_deref_expression, 2373),
     (sym_variable, 7599), (sym_var_access, 2373), (sym_in_out_decls, 3160), (sym_var_decls, 3160),
     (sym_retain_var_decls, 3160), (sym_temp_var_decls, 3160), (sym_external_var_decls, 3160),
     (sym_global_var_decls, 2947), (sym_loc_partly_var_decl, 3160), (sym__fb_variables, 377),
     (sym_fb_input_decls, 3160), (sym_fb_output_decls, 3160), (sym_no_retain_var_decls, 3160),
     (sym_fb_body, 9317), (sym_method_decl, 380), (sym_prog_access_decls, 3043), (sym_SFC, 7970),
     (sym_SFC_network, 7612), (sym_initial_step, 7439), (sym_config_init, 3047),
     (sym_using_directive, 304), (sym_variable_access, 7530), (sym_func_call, 2961),
     (sym_stmt_list, 7970), (sym__stmt, 2024), (sym_assign, 3150), (sym_if_stmt, 3150),
     (sym_case_stmt, 3150), (sym_for_stmt, 3150), (sym_while_stmt, 3150), (sym_repeat_stmt, 3150),
     (sym_raise_stmt, 3150), (sym_try_stmt, 3150), (sym_ERR_clause_outside_try, 3150),
     (sym_begin_path_expression, 2943), (sym_invocation, 2934), (sym_any_invocation, 2935),
     (sym_this_invocation, 2641), (sym_super_invocation, 2641), (sym_super_body_invocation, 2935),
     (sym_path_expression, 2627), (sym_field_expression, 2373), (sym_index_expression, 2373),
     (sym_ladder_diagram, 7970), (sym_fb_diagram, 7970),
     (aux_sym_ERR_fb_variables_after_method_repeat1, 377), (aux_sym_func_decl_repeat1, 7194),
     (aux_sym_func_decl_repeat2, 304), (aux_sym_fb_decl_repeat2, 156),
     (aux_sym_fb_decl_repeat3, 380), (aux_sym_SFC_repeat1, 7612), (aux_sym_stmt_list_repeat1, 2024),
     (aux_sym_ladder_diagram_repeat1, 8009), (aux_sym_fb_diagram_repeat1, 8013),
     (sym_identifier, 298), (aux_sym_ERR_implements_before_extends_token1, 486),
     (aux_sym_ERR_unexpected_this_in_path_token1, 304),
     (aux_sym_ERR_unexpected_super_in_path_token1, 306), (sym_line_comment, 3),
     (anon_sym_LBRACE, 308), (aux_sym_test_pragma_token1, 9), (aux_sym_once_pragma_token1, 11),
     (aux_sym_must_call_pragma_token1, 13), (aux_sym_export_pragma_token1, 15),
     (anon_sym_SEMI, 310), (anon_sym_PERCENT, 312), (aux_sym_input_decls_token1, 314),
     (aux_sym_output_decls_token1, 316), (aux_sym_in_out_decls_token1, 318),
     (aux_sym_var_decls_token1, 320), (aux_sym_temp_var_decls_token1, 322),
     (aux_sym_external_var_decls_token1, 324), (aux_sym_global_var_decls_token1, 326),
     (aux_sym_fb_decl_token4, 514), (aux_sym_method_decl_token1, 330),
     (aux_sym_prog_access_decls_token1, 332), (aux_sym_initial_step_token1, 334),
     (aux_sym_config_init_token1, 336), (aux_sym_using_directive_token1, 338),
     (aux_sym__stmt_token1, 340), (aux_sym__stmt_token2, 340), (aux_sym__stmt_token3, 340),
     (aux_sym_if_stmt_token1, 342), (aux_sym_case_stmt_token1, 344), (aux_sym_for_stmt_token1, 346),
     (aux_sym_while_stmt_token1, 348), (aux_sym_repeat_stmt_token1, 350),
     (aux_sym_raise_stmt_token1, 352), (aux_sym_try_stmt_token1, 354),
     (aux_sym_try_stmt_token2, 356), (aux_sym_catch_clause_token1, 356),
     (aux_sym_finally_clause_token1, 356), (sym_ld_rung, 358), (sym_fbd_network, 360),
     (sym_c_style_comment, 3), (sym_pascal_style_comment, 3), (sym_pragma, 3)]"

lemma ts_parse_row_135_scan: "row_scan tokens_63_2 0 ts_parse_row_135 = Some (Suc (Suc (Suc (Suc 0))))"
  unfolding ts_parse_row_135_def by simp

text \<open>Lines 69853 to 69971.\<close>

definition ts_parse_row_136 :: parse_row where
  "ts_parse_row_136 =
    [(sym_ERR_implements_multiple_times, 157), (sym_ERR_assign_func_call, 7530),
     (sym_ERR_unexpected_this_in_path, 2372), (sym_ERR_unexpected_super_in_path, 2372),
     (sym_ERR_fb_variables_after_method, 1828), (sym_ERR_var_access_not_allowed, 3160),
     (sym_ERR_var_config_not_allowed, 3160), (sym_ERR_var_global_not_allowed, 3160),
     (sym_ERR_method_decl_in_body, 3150), (sym_extern_pragma, 7490), (sym_wasm_pragma, 3150),
     (sym_warn_pragma, 7490), (sym_allow_pragma, 3140), (sym_test_pragma, 7490),
     (sym_once_pragma, 7490), (sym_must_call_pragma, 7490), (sym_export_pragma, 7490),
     (sym_pou_pragma, 7194), (sym_direct_variable, 7675), (sym_deref_expression, 2373),
     (sym_variable, 7599), (sym_var_access, 2373), (sym_in_out_decls, 3160), (sym_var_decls, 3160),
     (sym_retain_var_decls, 3160), (sym_temp_var_decls, 3160), (sym_external_var_decls, 3160),
     (sym_global_var_decls, 2947), (sym_loc_partly_var_decl, 3160), (sym__fb_variables, 389),
     (sym_fb_input_decls, 3160), (sym_fb_output_decls, 3160), (sym_no_retain_var_decls, 3160),
     (sym_fb_body, 9499), (sym_method_decl, 392), (sym_prog_access_decls, 3043), (sym_SFC, 7970),
     (sym_SFC_network, 7612), (sym_initial_step, 7439), (sym_config_init, 3047),
     (sym_using_directive, 268), (sym_variable_access, 7530), (sym_func_call, 2961),
     (sym_stmt_list, 7970), (sym__stmt, 2024), (sym_assign, 3150), (sym_if_stmt, 3150),
     (sym_case_stmt, 3150), (sym_for_stmt, 3150), (sym_while_stmt, 3150), (sym_repeat_stmt, 3150),
     (sym_raise_stmt, 3150), (sym_try_stmt, 3150), (sym_ERR_clause_outside_try, 3150),
     (sym_begin_path_expression, 2943), (sym_invocation, 2934), (sym_any_invocation, 2935),
     (sym_this_invocation, 2641), (sym_super_invocation, 2641), (sym_super_body_invocation, 2935),
     (sym_path_expression, 2627), (sym_field_expression, 2373), (sym_index_expression, 2373),
     (sym_ladder_diagram, 7970), (sym_fb_diagram, 7970),
     (aux_sym_ERR_fb_variables_after_method_repeat1, 389), (aux_sym_func_decl_repeat1, 7194),
     (aux_sym_func_decl_repeat2, 268), (aux_sym_fb_decl_repeat2, 157),
     (aux_sym_fb_decl_repeat3, 392), (aux_sym_SFC_repeat1, 7612), (aux_sym_stmt_list_repeat1, 2024),
     (aux_sym_ladder_diagram_repeat1, 8009), (aux_sym_fb_diagram_repeat1, 8013),
     (sym_identifier, 298), (aux_sym_ERR_implements_before_extends_token1, 486),
     (aux_sym_ERR_unexpected_this_in_path_token1, 304),
     (aux_sym_ERR_unexpected_super_in_path_token1, 306), (sym_line_comment, 3),
     (anon_sym_LBRACE, 308), (aux_sym_test_pragma_token1, 9), (aux_sym_once_pragma_token1, 11),
     (aux_sym_must_call_pragma_token1, 13), (aux_sym_export_pragma_token1, 15),
     (anon_sym_SEMI, 310), (anon_sym_PERCENT, 312), (aux_sym_input_decls_token1, 314),
     (aux_sym_output_decls_token1, 316), (aux_sym_in_out_decls_token1, 318),
     (aux_sym_var_decls_token1, 320), (aux_sym_temp_var_decls_token1, 322),
     (aux_sym_external_var_decls_token1, 324), (aux_sym_global_var_decls_token1, 326),
     (aux_sym_fb_decl_token4, 516), (aux_sym_method_decl_token1, 330),
     (aux_sym_prog_access_decls_token1, 332), (aux_sym_initial_step_token1, 334),
     (aux_sym_config_init_token1, 336), (aux_sym_using_directive_token1, 338),
     (aux_sym__stmt_token1, 340), (aux_sym__stmt_token2, 340), (aux_sym__stmt_token3, 340),
     (aux_sym_if_stmt_token1, 342), (aux_sym_case_stmt_token1, 344), (aux_sym_for_stmt_token1, 346),
     (aux_sym_while_stmt_token1, 348), (aux_sym_repeat_stmt_token1, 350),
     (aux_sym_raise_stmt_token1, 352), (aux_sym_try_stmt_token1, 354),
     (aux_sym_try_stmt_token2, 356), (aux_sym_catch_clause_token1, 356),
     (aux_sym_finally_clause_token1, 356), (sym_ld_rung, 358), (sym_fbd_network, 360),
     (sym_c_style_comment, 3), (sym_pascal_style_comment, 3), (sym_pragma, 3)]"

lemma ts_parse_row_136_scan: "row_scan tokens_63_2 0 ts_parse_row_136 = Some (Suc (Suc (Suc (Suc 0))))"
  unfolding ts_parse_row_136_def by simp

text \<open>Lines 69972 to 70090.\<close>

definition ts_parse_row_137 :: parse_row where
  "ts_parse_row_137 =
    [(sym_ERR_implements_multiple_times, 2978), (sym_ERR_assign_func_call, 7530),
     (sym_ERR_unexpected_this_in_path, 2372), (sym_ERR_unexpected_super_in_path, 2372),
     (sym_ERR_fb_variables_after_method, 1860), (sym_ERR_var_access_not_allowed, 3160),
     (sym_ERR_var_config_not_allowed, 3160), (sym_ERR_var_global_not_allowed, 3160),
     (sym_ERR_method_decl_in_body, 3150), (sym_extern_pragma, 7490), (sym_wasm_pragma, 3150),
     (sym_warn_pragma, 7490), (sym_allow_pragma, 3140), (sym_test_pragma, 7490),
     (sym_once_pragma, 7490), (sym_must_call_pragma, 7490), (sym_export_pragma, 7490),
     (sym_pou_pragma, 7194), (sym_direct_variable, 7675), (sym_deref_expression, 2373),
     (sym_variable, 7599), (sym_var_access, 2373), (sym_in_out_decls, 3160), (sym_var_decls, 3160),
     (sym_retain_var_decls, 3160), (sym_temp_var_decls, 3160), (sym_external_var_decls, 3160),
     (sym_global_var_decls, 2947), (sym_loc_partly_var_decl, 3160), (sym__fb_variables, 398),
     (sym_fb_input_decls, 3160), (sym_fb_output_decls, 3160), (sym_no_retain_var_decls, 3160),
     (sym_fb_body, 9544), (sym_method_decl, 400), (sym_prog_access_decls, 3043), (sym_SFC, 7970),
     (sym_SFC_network, 7612), (sym_initial_step, 7439), (sym_config_init, 3047),
     (sym_using_directive, 274), (sym_variable_access, 7530), (sym_func_call, 2961),
     (sym_stmt_list, 7970), (sym__stmt, 2024), (sym_assign, 3150), (sym_if_stmt, 3150),
     (sym_case_stmt, 3150), (sym_for_stmt, 3150), (sym_while_stmt, 3150), (sym_repeat_stmt, 3150),
     (sym_raise_stmt, 3150), (sym_try_stmt, 3150), (sym_ERR_clause_outside_try, 3150),
     (sym_begin_path_expression, 2943), (sym_invocation, 2934), (sym_any_invocation, 2935),
     (sym_this_invocation, 2641), (sym_super_invocation, 2641), (sym_super_body_invocation, 2935),
     (sym_path_expression, 2627), (sym_field_expression, 2373), (sym_index_expression, 2373),
     (sym_ladder_diagram, 7970), (sym_fb_diagram, 7970),
     (aux_sym_ERR_fb_variables_after_method_repeat1, 398), (aux_sym_func_decl_repeat1, 7194),
     (aux_sym_func_decl_repeat2, 274), (aux_sym_fb_decl_repeat2, 2978),
     (aux_sym_fb_decl_repeat3, 400), (aux_sym_SFC_repeat1, 7612), (aux_sym_stmt_list_repeat1, 2024),
     (aux_sym_ladder_diagram_repeat1, 8009), (aux_sym_fb_diagram_repeat1, 8013),
     (sym_identifier, 298), (aux_sym_ERR_implements_before_extends_token1, 486),
     (aux_sym_ERR_unexpected_this_in_path_token1, 304),
     (aux_sym_ERR_unexpected_super_in_path_token1, 306), (sym_line_comment, 3),
     (anon_sym_LBRACE, 308), (aux_sym_test_pragma_token1, 9), (aux_sym_once_pragma_token1, 11),
     (aux_sym_must_call_pragma_token1, 13), (aux_sym_export_pragma_token1, 15),
     (anon_sym_SEMI, 310), (anon_sym_PERCENT, 312), (aux_sym_input_decls_token1, 314),
     (aux_sym_output_decls_token1, 316), (aux_sym_in_out_decls_token1, 318),
     (aux_sym_var_decls_token1, 320), (aux_sym_temp_var_decls_token1, 322),
     (aux_sym_external_var_decls_token1, 324), (aux_sym_global_var_decls_token1, 326),
     (aux_sym_fb_decl_token4, 518), (aux_sym_method_decl_token1, 330),
     (aux_sym_prog_access_decls_token1, 332), (aux_sym_initial_step_token1, 334),
     (aux_sym_config_init_token1, 336), (aux_sym_using_directive_token1, 338),
     (aux_sym__stmt_token1, 340), (aux_sym__stmt_token2, 340), (aux_sym__stmt_token3, 340),
     (aux_sym_if_stmt_token1, 342), (aux_sym_case_stmt_token1, 344), (aux_sym_for_stmt_token1, 346),
     (aux_sym_while_stmt_token1, 348), (aux_sym_repeat_stmt_token1, 350),
     (aux_sym_raise_stmt_token1, 352), (aux_sym_try_stmt_token1, 354),
     (aux_sym_try_stmt_token2, 356), (aux_sym_catch_clause_token1, 356),
     (aux_sym_finally_clause_token1, 356), (sym_ld_rung, 358), (sym_fbd_network, 360),
     (sym_c_style_comment, 3), (sym_pascal_style_comment, 3), (sym_pragma, 3)]"

lemma ts_parse_row_137_scan: "row_scan tokens_63_2 0 ts_parse_row_137 = Some (Suc (Suc (Suc (Suc 0))))"
  unfolding ts_parse_row_137_def by simp

text \<open>Lines 70091 to 70209.\<close>

definition ts_parse_row_138 :: parse_row where
  "ts_parse_row_138 =
    [(sym_ERR_implements_multiple_times, 2978), (sym_ERR_assign_func_call, 7530),
     (sym_ERR_unexpected_this_in_path, 2372), (sym_ERR_unexpected_super_in_path, 2372),
     (sym_ERR_fb_variables_after_method, 1868), (sym_ERR_var_access_not_allowed, 3160),
     (sym_ERR_var_config_not_allowed, 3160), (sym_ERR_var_global_not_allowed, 3160),
     (sym_ERR_method_decl_in_body, 3150), (sym_extern_pragma, 7490), (sym_wasm_pragma, 3150),
     (sym_warn_pragma, 7490), (sym_allow_pragma, 3140), (sym_test_pragma, 7490),
     (sym_once_pragma, 7490), (sym_must_call_pragma, 7490), (sym_export_pragma, 7490),
     (sym_pou_pragma, 7194), (sym_direct_variable, 7675), (sym_deref_expression, 2373),
     (sym_variable, 7599), (sym_var_access, 2373), (sym_in_out_decls, 3160), (sym_var_decls, 3160),
     (sym_retain_var_decls, 3160), (sym_temp_var_decls, 3160), (sym_external_var_decls, 3160),
     (sym_global_var_decls, 2947), (sym_loc_partly_var_decl, 3160), (sym__fb_variables, 404),
     (sym_fb_input_decls, 3160), (sym_fb_output_decls, 3160), (sym_no_retain_var_decls, 3160),
     (sym_fb_body, 9598), (sym_method_decl, 406), (sym_prog_access_decls, 3043), (sym_SFC, 7970),
     (sym_SFC_network, 7612), (sym_initial_step, 7439), (sym_config_init, 3047),
     (sym_using_directive, 275), (sym_variable_access, 7530), (sym_func_call, 2961),
     (sym_stmt_list, 7970), (sym__stmt, 2024), (sym_assign, 3150), (sym_if_stmt, 3150),
     (sym_case_stmt, 3150), (sym_for_stmt, 3150), (sym_while_stmt, 3150), (sym_repeat_stmt, 3150),
     (sym_raise_stmt, 3150), (sym_try_stmt, 3150), (sym_ERR_clause_outside_try, 3150),
     (sym_begin_path_expression, 2943), (sym_invocation, 2934), (sym_any_invocation, 2935),
     (sym_this_invocation, 2641), (sym_super_invocation, 2641), (sym_super_body_invocation, 2935),
     (sym_path_expression, 2627), (sym_field_expression, 2373), (sym_index_expression, 2373),
     (sym_ladder_diagram, 7970), (sym_fb_diagram, 7970),
     (aux_sym_ERR_fb_variables_after_method_repeat1, 404), (aux_sym_func_decl_repeat1, 7194),
     (aux_sym_func_decl_repeat2, 275), (aux_sym_fb_decl_repeat2, 2978),
     (aux_sym_fb_decl_repeat3, 406), (aux_sym_SFC_repeat1, 7612), (aux_sym_stmt_list_repeat1, 2024),
     (aux_sym_ladder_diagram_repeat1, 8009), (aux_sym_fb_diagram_repeat1, 8013),
     (sym_identifier, 298), (aux_sym_ERR_implements_before_extends_token1, 486),
     (aux_sym_ERR_unexpected_this_in_path_token1, 304),
     (aux_sym_ERR_unexpected_super_in_path_token1, 306), (sym_line_comment, 3),
     (anon_sym_LBRACE, 308), (aux_sym_test_pragma_token1, 9), (aux_sym_once_pragma_token1, 11),
     (aux_sym_must_call_pragma_token1, 13), (aux_sym_export_pragma_token1, 15),
     (anon_sym_SEMI, 310), (anon_sym_PERCENT, 312), (aux_sym_input_decls_token1, 314),
     (aux_sym_output_decls_token1, 316), (aux_sym_in_out_decls_token1, 318),
     (aux_sym_var_decls_token1, 320), (aux_sym_temp_var_decls_token1, 322),
     (aux_sym_external_var_decls_token1, 324), (aux_sym_global_var_decls_token1, 326),
     (aux_sym_fb_decl_token4, 520), (aux_sym_method_decl_token1, 330),
     (aux_sym_prog_access_decls_token1, 332), (aux_sym_initial_step_token1, 334),
     (aux_sym_config_init_token1, 336), (aux_sym_using_directive_token1, 338),
     (aux_sym__stmt_token1, 340), (aux_sym__stmt_token2, 340), (aux_sym__stmt_token3, 340),
     (aux_sym_if_stmt_token1, 342), (aux_sym_case_stmt_token1, 344), (aux_sym_for_stmt_token1, 346),
     (aux_sym_while_stmt_token1, 348), (aux_sym_repeat_stmt_token1, 350),
     (aux_sym_raise_stmt_token1, 352), (aux_sym_try_stmt_token1, 354),
     (aux_sym_try_stmt_token2, 356), (aux_sym_catch_clause_token1, 356),
     (aux_sym_finally_clause_token1, 356), (sym_ld_rung, 358), (sym_fbd_network, 360),
     (sym_c_style_comment, 3), (sym_pascal_style_comment, 3), (sym_pragma, 3)]"

lemma ts_parse_row_138_scan: "row_scan tokens_63_2 0 ts_parse_row_138 = Some (Suc (Suc (Suc (Suc 0))))"
  unfolding ts_parse_row_138_def by simp

text \<open>Lines 70210 to 70328.\<close>

definition ts_parse_row_139 :: parse_row where
  "ts_parse_row_139 =
    [(sym_ERR_implements_multiple_times, 2978), (sym_ERR_assign_func_call, 7530),
     (sym_ERR_unexpected_this_in_path, 2372), (sym_ERR_unexpected_super_in_path, 2372),
     (sym_ERR_fb_variables_after_method, 1879), (sym_ERR_var_access_not_allowed, 3160),
     (sym_ERR_var_config_not_allowed, 3160), (sym_ERR_var_global_not_allowed, 3160),
     (sym_ERR_method_decl_in_body, 3150), (sym_extern_pragma, 7490), (sym_wasm_pragma, 3150),
     (sym_warn_pragma, 7490), (sym_allow_pragma, 3140), (sym_test_pragma, 7490),
     (sym_once_pragma, 7490), (sym_must_call_pragma, 7490), (sym_export_pragma, 7490),
     (sym_pou_pragma, 7194), (sym_direct_variable, 7675), (sym_deref_expression, 2373),
     (sym_variable, 7599), (sym_var_access, 2373), (sym_in_out_decls, 3160), (sym_var_decls, 3160),
     (sym_retain_var_decls, 3160), (sym_temp_var_decls, 3160), (sym_external_var_decls, 3160),
     (sym_global_var_decls, 2947), (sym_loc_partly_var_decl, 3160), (sym__fb_variables, 411),
     (sym_fb_input_decls, 3160), (sym_fb_output_decls, 3160), (sym_no_retain_var_decls, 3160),
     (sym_fb_body, 10043), (sym_method_decl, 413), (sym_prog_access_decls, 3043), (sym_SFC, 7970),
     (sym_SFC_network, 7612), (sym_initial_step, 7439), (sym_config_init, 3047),
     (sym_using_directive, 279), (sym_variable_access, 7530), (sym_func_call, 2961),
     (sym_stmt_list, 7970), (sym__stmt, 2024), (sym_assign, 3150), (sym_if_stmt, 3150),
     (sym_case_stmt, 3150), (sym_for_stmt, 3150), (sym_while_stmt, 3150), (sym_repeat_stmt, 3150),
     (sym_raise_stmt, 3150), (sym_try_stmt, 3150), (sym_ERR_clause_outside_try, 3150),
     (sym_begin_path_expression, 2943), (sym_invocation, 2934), (sym_any_invocation, 2935),
     (sym_this_invocation, 2641), (sym_super_invocation, 2641), (sym_super_body_invocation, 2935),
     (sym_path_expression, 2627), (sym_field_expression, 2373), (sym_index_expression, 2373),
     (sym_ladder_diagram, 7970), (sym_fb_diagram, 7970),
     (aux_sym_ERR_fb_variables_after_method_repeat1, 411), (aux_sym_func_decl_repeat1, 7194),
     (aux_sym_func_decl_repeat2, 279), (aux_sym_fb_decl_repeat2, 2978),
     (aux_sym_fb_decl_repeat3, 413), (aux_sym_SFC_repeat1, 7612), (aux_sym_stmt_list_repeat1, 2024),
     (aux_sym_ladder_diagram_repeat1, 8009), (aux_sym_fb_diagram_repeat1, 8013),
     (sym_identifier, 298), (aux_sym_ERR_implements_before_extends_token1, 486),
     (aux_sym_ERR_unexpected_this_in_path_token1, 304),
     (aux_sym_ERR_unexpected_super_in_path_token1, 306), (sym_line_comment, 3),
     (anon_sym_LBRACE, 308), (aux_sym_test_pragma_token1, 9), (aux_sym_once_pragma_token1, 11),
     (aux_sym_must_call_pragma_token1, 13), (aux_sym_export_pragma_token1, 15),
     (anon_sym_SEMI, 310), (anon_sym_PERCENT, 312), (aux_sym_input_decls_token1, 314),
     (aux_sym_output_decls_token1, 316), (aux_sym_in_out_decls_token1, 318),
     (aux_sym_var_decls_token1, 320), (aux_sym_temp_var_decls_token1, 322),
     (aux_sym_external_var_decls_token1, 324), (aux_sym_global_var_decls_token1, 326),
     (aux_sym_fb_decl_token4, 522), (aux_sym_method_decl_token1, 330),
     (aux_sym_prog_access_decls_token1, 332), (aux_sym_initial_step_token1, 334),
     (aux_sym_config_init_token1, 336), (aux_sym_using_directive_token1, 338),
     (aux_sym__stmt_token1, 340), (aux_sym__stmt_token2, 340), (aux_sym__stmt_token3, 340),
     (aux_sym_if_stmt_token1, 342), (aux_sym_case_stmt_token1, 344), (aux_sym_for_stmt_token1, 346),
     (aux_sym_while_stmt_token1, 348), (aux_sym_repeat_stmt_token1, 350),
     (aux_sym_raise_stmt_token1, 352), (aux_sym_try_stmt_token1, 354),
     (aux_sym_try_stmt_token2, 356), (aux_sym_catch_clause_token1, 356),
     (aux_sym_finally_clause_token1, 356), (sym_ld_rung, 358), (sym_fbd_network, 360),
     (sym_c_style_comment, 3), (sym_pascal_style_comment, 3), (sym_pragma, 3)]"

lemma ts_parse_row_139_scan: "row_scan tokens_63_2 0 ts_parse_row_139 = Some (Suc (Suc (Suc (Suc 0))))"
  unfolding ts_parse_row_139_def by simp

text \<open>Lines 70329 to 70447.\<close>

definition ts_parse_row_140 :: parse_row where
  "ts_parse_row_140 =
    [(sym_ERR_implements_multiple_times, 2978), (sym_ERR_assign_func_call, 7530),
     (sym_ERR_unexpected_this_in_path, 2372), (sym_ERR_unexpected_super_in_path, 2372),
     (sym_ERR_fb_variables_after_method, 1887), (sym_ERR_var_access_not_allowed, 3160),
     (sym_ERR_var_config_not_allowed, 3160), (sym_ERR_var_global_not_allowed, 3160),
     (sym_ERR_method_decl_in_body, 3150), (sym_extern_pragma, 7490), (sym_wasm_pragma, 3150),
     (sym_warn_pragma, 7490), (sym_allow_pragma, 3140), (sym_test_pragma, 7490),
     (sym_once_pragma, 7490), (sym_must_call_pragma, 7490), (sym_export_pragma, 7490),
     (sym_pou_pragma, 7194), (sym_direct_variable, 7675), (sym_deref_expression, 2373),
     (sym_variable, 7599), (sym_var_access, 2373), (sym_in_out_decls, 3160), (sym_var_decls, 3160),
     (sym_retain_var_decls, 3160), (sym_temp_var_decls, 3160), (sym_external_var_decls, 3160),
     (sym_global_var_decls, 2947), (sym_loc_partly_var_decl, 3160), (sym__fb_variables, 418),
     (sym_fb_input_decls, 3160), (sym_fb_output_decls, 3160), (sym_no_retain_var_decls, 3160),
     (sym_fb_body, 8226), (sym_method_decl, 421), (sym_prog_access_decls, 3043), (sym_SFC, 7970),
     (sym_SFC_network, 7612), (sym_initial_step, 7439), (sym_config_init, 3047),
     (sym_using_directive, 283), (sym_variable_access, 7530), (sym_func_call, 2961),
     (sym_stmt_list, 7970), (sym__stmt, 2024), (sym_assign, 3150), (sym_if_stmt, 3150),
     (sym_case_stmt, 3150), (sym_for_stmt, 3150), (sym_while_stmt, 3150), (sym_repeat_stmt, 3150),
     (sym_raise_stmt, 3150), (sym_try_stmt, 3150), (sym_ERR_clause_outside_try, 3150),
     (sym_begin_path_expression, 2943), (sym_invocation, 2934), (sym_any_invocation, 2935),
     (sym_this_invocation, 2641), (sym_super_invocation, 2641), (sym_super_body_invocation, 2935),
     (sym_path_expression, 2627), (sym_field_expression, 2373), (sym_index_expression, 2373),
     (sym_ladder_diagram, 7970), (sym_fb_diagram, 7970),
     (aux_sym_ERR_fb_variables_after_method_repeat1, 418), (aux_sym_func_decl_repeat1, 7194),
     (aux_sym_func_decl_repeat2, 283), (aux_sym_fb_decl_repeat2, 2978),
     (aux_sym_fb_decl_repeat3, 421), (aux_sym_SFC_repeat1, 7612), (aux_sym_stmt_list_repeat1, 2024),
     (aux_sym_ladder_diagram_repeat1, 8009), (aux_sym_fb_diagram_repeat1, 8013),
     (sym_identifier, 298), (aux_sym_ERR_implements_before_extends_token1, 486),
     (aux_sym_ERR_unexpected_this_in_path_token1, 304),
     (aux_sym_ERR_unexpected_super_in_path_token1, 306), (sym_line_comment, 3),
     (anon_sym_LBRACE, 308), (aux_sym_test_pragma_token1, 9), (aux_sym_once_pragma_token1, 11),
     (aux_sym_must_call_pragma_token1, 13), (aux_sym_export_pragma_token1, 15),
     (anon_sym_SEMI, 310), (anon_sym_PERCENT, 312), (aux_sym_input_decls_token1, 314),
     (aux_sym_output_decls_token1, 316), (aux_sym_in_out_decls_token1, 318),
     (aux_sym_var_decls_token1, 320), (aux_sym_temp_var_decls_token1, 322),
     (aux_sym_external_var_decls_token1, 324), (aux_sym_global_var_decls_token1, 326),
     (aux_sym_fb_decl_token4, 418), (aux_sym_method_decl_token1, 330),
     (aux_sym_prog_access_decls_token1, 332), (aux_sym_initial_step_token1, 334),
     (aux_sym_config_init_token1, 336), (aux_sym_using_directive_token1, 338),
     (aux_sym__stmt_token1, 340), (aux_sym__stmt_token2, 340), (aux_sym__stmt_token3, 340),
     (aux_sym_if_stmt_token1, 342), (aux_sym_case_stmt_token1, 344), (aux_sym_for_stmt_token1, 346),
     (aux_sym_while_stmt_token1, 348), (aux_sym_repeat_stmt_token1, 350),
     (aux_sym_raise_stmt_token1, 352), (aux_sym_try_stmt_token1, 354),
     (aux_sym_try_stmt_token2, 356), (aux_sym_catch_clause_token1, 356),
     (aux_sym_finally_clause_token1, 356), (sym_ld_rung, 358), (sym_fbd_network, 360),
     (sym_c_style_comment, 3), (sym_pascal_style_comment, 3), (sym_pragma, 3)]"

lemma ts_parse_row_140_scan: "row_scan tokens_63_2 0 ts_parse_row_140 = Some (Suc (Suc (Suc (Suc 0))))"
  unfolding ts_parse_row_140_def by simp

text \<open>Lines 70448 to 70566.\<close>

definition ts_parse_row_141 :: parse_row where
  "ts_parse_row_141 =
    [(sym_ERR_implements_multiple_times, 161), (sym_ERR_assign_func_call, 7530),
     (sym_ERR_unexpected_this_in_path, 2372), (sym_ERR_unexpected_super_in_path, 2372),
     (sym_ERR_fb_variables_after_method, 1891), (sym_ERR_var_access_not_allowed, 3160),
     (sym_ERR_var_config_not_allowed, 3160), (sym_ERR_var_global_not_allowed, 3160),
     (sym_ERR_method_decl_in_body, 3150), (sym_extern_pragma, 7490), (sym_wasm_pragma, 3150),
     (sym_warn_pragma, 7490), (sym_allow_pragma, 3140), (sym_test_pragma, 7490),
     (sym_once_pragma, 7490), (sym_must_call_pragma, 7490), (sym_export_pragma, 7490),
     (sym_pou_pragma, 7194), (sym_direct_variable, 7675), (sym_deref_expression, 2373),
     (sym_variable, 7599), (sym_var_access, 2373), (sym_in_out_decls, 3160), (sym_var_decls, 3160),
     (sym_retain_var_decls, 3160), (sym_temp_var_decls, 3160), (sym_external_var_decls, 3160),
     (sym_global_var_decls, 2947), (sym_loc_partly_var_decl, 3160), (sym__fb_variables, 422),
     (sym_fb_input_decls, 3160), (sym_fb_output_decls, 3160), (sym_no_retain_var_decls, 3160),
     (sym_fb_body, 8387), (sym_method_decl, 425), (sym_prog_access_decls, 3043), (sym_SFC, 7970),
     (sym_SFC_network, 7612), (sym_initial_step, 7439), (sym_config_init, 3047),
     (sym_using_directive, 286), (sym_variable_access, 7530), (sym_func_call, 2961),
     (sym_stmt_list, 7970), (sym__stmt, 2024), (sym_assign, 3150), (sym_if_stmt, 3150),
     (sym_case_stmt, 3150), (sym_for_stmt, 3150), (sym_while_stmt, 3150), (sym_repeat_stmt, 3150),
     (sym_raise_stmt, 3150), (sym_try_stmt, 3150), (sym_ERR_clause_outside_try, 3150),
     (sym_begin_path_expression, 2943), (sym_invocation, 2934), (sym_any_invocation, 2935),
     (sym_this_invocation, 2641), (sym_super_invocation, 2641), (sym_super_body_invocation, 2935),
     (sym_path_expression, 2627), (sym_field_expression, 2373), (sym_index_expression, 2373),
     (sym_ladder_diagram, 7970), (sym_fb_diagram, 7970),
     (aux_sym_ERR_fb_variables_after_method_repeat1, 422), (aux_sym_func_decl_repeat1, 7194),
     (aux_sym_func_decl_repeat2, 286), (aux_sym_fb_decl_repeat2, 161),
     (aux_sym_fb_decl_repeat3, 425), (aux_sym_SFC_repeat1, 7612), (aux_sym_stmt_list_repeat1, 2024),
     (aux_sym_ladder_diagram_repeat1, 8009), (aux_sym_fb_diagram_repeat1, 8013),
     (sym_identifier, 298), (aux_sym_ERR_implements_before_extends_token1, 486),
     (aux_sym_ERR_unexpected_this_in_path_token1, 304),
     (aux_sym_ERR_unexpected_super_in_path_token1, 306), (sym_line_comment, 3),
     (anon_sym_LBRACE, 308), (aux_sym_test_pragma_token1, 9), (aux_sym_once_pragma_token1, 11),
     (aux_sym_must_call_pragma_token1, 13), (aux_sym_export_pragma_token1, 15),
     (anon_sym_SEMI, 310), (anon_sym_PERCENT, 312), (aux_sym_input_decls_token1, 314),
     (aux_sym_output_decls_token1, 316), (aux_sym_in_out_decls_token1, 318),
     (aux_sym_var_decls_token1, 320), (aux_sym_temp_var_decls_token1, 322),
     (aux_sym_external_var_decls_token1, 324), (aux_sym_global_var_decls_token1, 326),
     (aux_sym_fb_decl_token4, 524), (aux_sym_method_decl_token1, 330),
     (aux_sym_prog_access_decls_token1, 332), (aux_sym_initial_step_token1, 334),
     (aux_sym_config_init_token1, 336), (aux_sym_using_directive_token1, 338),
     (aux_sym__stmt_token1, 340), (aux_sym__stmt_token2, 340), (aux_sym__stmt_token3, 340),
     (aux_sym_if_stmt_token1, 342), (aux_sym_case_stmt_token1, 344), (aux_sym_for_stmt_token1, 346),
     (aux_sym_while_stmt_token1, 348), (aux_sym_repeat_stmt_token1, 350),
     (aux_sym_raise_stmt_token1, 352), (aux_sym_try_stmt_token1, 354),
     (aux_sym_try_stmt_token2, 356), (aux_sym_catch_clause_token1, 356),
     (aux_sym_finally_clause_token1, 356), (sym_ld_rung, 358), (sym_fbd_network, 360),
     (sym_c_style_comment, 3), (sym_pascal_style_comment, 3), (sym_pragma, 3)]"

lemma ts_parse_row_141_scan: "row_scan tokens_63_2 0 ts_parse_row_141 = Some (Suc (Suc (Suc (Suc 0))))"
  unfolding ts_parse_row_141_def by simp

text \<open>Lines 70567 to 70685.\<close>

definition ts_parse_row_142 :: parse_row where
  "ts_parse_row_142 =
    [(sym_ERR_implements_multiple_times, 2978), (sym_ERR_assign_func_call, 7530),
     (sym_ERR_unexpected_this_in_path, 2372), (sym_ERR_unexpected_super_in_path, 2372),
     (sym_ERR_fb_variables_after_method, 1907), (sym_ERR_var_access_not_allowed, 3160),
     (sym_ERR_var_config_not_allowed, 3160), (sym_ERR_var_global_not_allowed, 3160),
     (sym_ERR_method_decl_in_body, 3150), (sym_extern_pragma, 7490), (sym_wasm_pragma, 3150),
     (sym_warn_pragma, 7490), (sym_allow_pragma, 3140), (sym_test_pragma, 7490),
     (sym_once_pragma, 7490), (sym_must_call_pragma, 7490), (sym_export_pragma, 7490),
     (sym_pou_pragma, 7194), (sym_direct_variable, 7675), (sym_deref_expression, 2373),
     (sym_variable, 7599), (sym_var_access, 2373), (sym_in_out_decls, 3160), (sym_var_decls, 3160),
     (sym_retain_var_decls, 3160), (sym_temp_var_decls, 3160), (sym_external_var_decls, 3160),
     (sym_global_var_decls, 2947), (sym_loc_partly_var_decl, 3160), (sym__fb_variables, 436),
     (sym_fb_input_decls, 3160), (sym_fb_output_decls, 3160), (sym_no_retain_var_decls, 3160),
     (sym_fb_body, 8644), (sym_method_decl, 438), (sym_prog_access_decls, 3043), (sym_SFC, 7970),
     (sym_SFC_network, 7612), (sym_initial_step, 7439), (sym_config_init, 3047),
     (sym_using_directive, 297), (sym_variable_access, 7530), (sym_func_call, 2961),
     (sym_stmt_list, 7970), (sym__stmt, 2024), (sym_assign, 3150), (sym_if_stmt, 3150),
     (sym_case_stmt, 3150), (sym_for_stmt, 3150), (sym_while_stmt, 3150), (sym_repeat_stmt, 3150),
     (sym_raise_stmt, 3150), (sym_try_stmt, 3150), (sym_ERR_clause_outside_try, 3150),
     (sym_begin_path_expression, 2943), (sym_invocation, 2934), (sym_any_invocation, 2935),
     (sym_this_invocation, 2641), (sym_super_invocation, 2641), (sym_super_body_invocation, 2935),
     (sym_path_expression, 2627), (sym_field_expression, 2373), (sym_index_expression, 2373),
     (sym_ladder_diagram, 7970), (sym_fb_diagram, 7970),
     (aux_sym_ERR_fb_variables_after_method_repeat1, 436), (aux_sym_func_decl_repeat1, 7194),
     (aux_sym_func_decl_repeat2, 297), (aux_sym_fb_decl_repeat2, 2978),
     (aux_sym_fb_decl_repeat3, 438), (aux_sym_SFC_repeat1, 7612), (aux_sym_stmt_list_repeat1, 2024),
     (aux_sym_ladder_diagram_repeat1, 8009), (aux_sym_fb_diagram_repeat1, 8013),
     (sym_identifier, 298), (aux_sym_ERR_implements_before_extends_token1, 486),
     (aux_sym_ERR_unexpected_this_in_path_token1, 304),
     (aux_sym_ERR_unexpected_super_in_path_token1, 306), (sym_line_comment, 3),
     (anon_sym_LBRACE, 308), (aux_sym_test_pragma_token1, 9), (aux_sym_once_pragma_token1, 11),
     (aux_sym_must_call_pragma_token1, 13), (aux_sym_export_pragma_token1, 15),
     (anon_sym_SEMI, 310), (anon_sym_PERCENT, 312), (aux_sym_input_decls_token1, 314),
     (aux_sym_output_decls_token1, 316), (aux_sym_in_out_decls_token1, 318),
     (aux_sym_var_decls_token1, 320), (aux_sym_temp_var_decls_token1, 322),
     (aux_sym_external_var_decls_token1, 324), (aux_sym_global_var_decls_token1, 326),
     (aux_sym_fb_decl_token4, 526), (aux_sym_method_decl_token1, 330),
     (aux_sym_prog_access_decls_token1, 332), (aux_sym_initial_step_token1, 334),
     (aux_sym_config_init_token1, 336), (aux_sym_using_directive_token1, 338),
     (aux_sym__stmt_token1, 340), (aux_sym__stmt_token2, 340), (aux_sym__stmt_token3, 340),
     (aux_sym_if_stmt_token1, 342), (aux_sym_case_stmt_token1, 344), (aux_sym_for_stmt_token1, 346),
     (aux_sym_while_stmt_token1, 348), (aux_sym_repeat_stmt_token1, 350),
     (aux_sym_raise_stmt_token1, 352), (aux_sym_try_stmt_token1, 354),
     (aux_sym_try_stmt_token2, 356), (aux_sym_catch_clause_token1, 356),
     (aux_sym_finally_clause_token1, 356), (sym_ld_rung, 358), (sym_fbd_network, 360),
     (sym_c_style_comment, 3), (sym_pascal_style_comment, 3), (sym_pragma, 3)]"

lemma ts_parse_row_142_scan: "row_scan tokens_63_2 0 ts_parse_row_142 = Some (Suc (Suc (Suc (Suc 0))))"
  unfolding ts_parse_row_142_def by simp

text \<open>Lines 70686 to 70804.\<close>

definition ts_parse_row_143 :: parse_row where
  "ts_parse_row_143 =
    [(sym_ERR_implements_multiple_times, 126), (sym_ERR_assign_func_call, 7530),
     (sym_ERR_unexpected_this_in_path, 2372), (sym_ERR_unexpected_super_in_path, 2372),
     (sym_ERR_fb_variables_after_method, 1920), (sym_ERR_var_access_not_allowed, 3160),
     (sym_ERR_var_config_not_allowed, 3160), (sym_ERR_var_global_not_allowed, 3160),
     (sym_ERR_method_decl_in_body, 3150), (sym_extern_pragma, 7490), (sym_wasm_pragma, 3150),
     (sym_warn_pragma, 7490), (sym_allow_pragma, 3140), (sym_test_pragma, 7490),
     (sym_once_pragma, 7490), (sym_must_call_pragma, 7490), (sym_export_pragma, 7490),
     (sym_pou_pragma, 7194), (sym_direct_variable, 7675), (sym_deref_expression, 2373),
     (sym_variable, 7599), (sym_var_access, 2373), (sym_in_out_decls, 3160), (sym_var_decls, 3160),
     (sym_retain_var_decls, 3160), (sym_temp_var_decls, 3160), (sym_external_var_decls, 3160),
     (sym_global_var_decls, 2947), (sym_loc_partly_var_decl, 3160), (sym__fb_variables, 443),
     (sym_fb_input_decls, 3160), (sym_fb_output_decls, 3160), (sym_no_retain_var_decls, 3160),
     (sym_fb_body, 9178), (sym_method_decl, 446), (sym_prog_access_decls, 3043), (sym_SFC, 7970),
     (sym_SFC_network, 7612), (sym_initial_step, 7439), (sym_config_init, 3047),
     (sym_using_directive, 300), (sym_variable_access, 7530), (sym_func_call, 2961),
     (sym_stmt_list, 7970), (sym__stmt, 2024), (sym_assign, 3150), (sym_if_stmt, 3150),
     (sym_case_stmt, 3150), (sym_for_stmt, 3150), (sym_while_stmt, 3150), (sym_repeat_stmt, 3150),
     (sym_raise_stmt, 3150), (sym_try_stmt, 3150), (sym_ERR_clause_outside_try, 3150),
     (sym_begin_path_expression, 2943), (sym_invocation, 2934), (sym_any_invocation, 2935),
     (sym_this_invocation, 2641), (sym_super_invocation, 2641), (sym_super_body_invocation, 2935),
     (sym_path_expression, 2627), (sym_field_expression, 2373), (sym_index_expression, 2373),
     (sym_ladder_diagram, 7970), (sym_fb_diagram, 7970),
     (aux_sym_ERR_fb_variables_after_method_repeat1, 443), (aux_sym_func_decl_repeat1, 7194),
     (aux_sym_func_decl_repeat2, 300), (aux_sym_fb_decl_repeat2, 126),
     (aux_sym_fb_decl_repeat3, 446), (aux_sym_SFC_repeat1, 7612), (aux_sym_stmt_list_repeat1, 2024),
     (aux_sym_ladder_diagram_repeat1, 8009), (aux_sym_fb_diagram_repeat1, 8013),
     (sym_identifier, 298), (aux_sym_ERR_implements_before_extends_token1, 486),
     (aux_sym_ERR_unexpected_this_in_path_token1, 304),
     (aux_sym_ERR_unexpected_super_in_path_token1, 306), (sym_line_comment, 3),
     (anon_sym_LBRACE, 308), (aux_sym_test_pragma_token1, 9), (aux_sym_once_pragma_token1, 11),
     (aux_sym_must_call_pragma_token1, 13), (aux_sym_export_pragma_token1, 15),
     (anon_sym_SEMI, 310), (anon_sym_PERCENT, 312), (aux_sym_input_decls_token1, 314),
     (aux_sym_output_decls_token1, 316), (aux_sym_in_out_decls_token1, 318),
     (aux_sym_var_decls_token1, 320), (aux_sym_temp_var_decls_token1, 322),
     (aux_sym_external_var_decls_token1, 324), (aux_sym_global_var_decls_token1, 326),
     (aux_sym_fb_decl_token4, 528), (aux_sym_method_decl_token1, 330),
     (aux_sym_prog_access_decls_token1, 332), (aux_sym_initial_step_token1, 334),
     (aux_sym_config_init_token1, 336), (aux_sym_using_directive_token1, 338),
     (aux_sym__stmt_token1, 340), (aux_sym__stmt_token2, 340), (aux_sym__stmt_token3, 340),
     (aux_sym_if_stmt_token1, 342), (aux_sym_case_stmt_token1, 344), (aux_sym_for_stmt_token1, 346),
     (aux_sym_while_stmt_token1, 348), (aux_sym_repeat_stmt_token1, 350),
     (aux_sym_raise_stmt_token1, 352), (aux_sym_try_stmt_token1, 354),
     (aux_sym_try_stmt_token2, 356), (aux_sym_catch_clause_token1, 356),
     (aux_sym_finally_clause_token1, 356), (sym_ld_rung, 358), (sym_fbd_network, 360),
     (sym_c_style_comment, 3), (sym_pascal_style_comment, 3), (sym_pragma, 3)]"

lemma ts_parse_row_143_scan: "row_scan tokens_63_2 0 ts_parse_row_143 = Some (Suc (Suc (Suc (Suc 0))))"
  unfolding ts_parse_row_143_def by simp

text \<open>Lines 70805 to 70923.\<close>

definition ts_parse_row_144 :: parse_row where
  "ts_parse_row_144 =
    [(sym_ERR_implements_multiple_times, 2978), (sym_ERR_assign_func_call, 7530),
     (sym_ERR_unexpected_this_in_path, 2372), (sym_ERR_unexpected_super_in_path, 2372),
     (sym_ERR_fb_variables_after_method, 1930), (sym_ERR_var_access_not_allowed, 3160),
     (sym_ERR_var_config_not_allowed, 3160), (sym_ERR_var_global_not_allowed, 3160),
     (sym_ERR_method_decl_in_body, 3150), (sym_extern_pragma, 7490), (sym_wasm_pragma, 3150),
     (sym_warn_pragma, 7490), (sym_allow_pragma, 3140), (sym_test_pragma, 7490),
     (sym_once_pragma, 7490), (sym_must_call_pragma, 7490), (sym_export_pragma, 7490),
     (sym_pou_pragma, 7194), (sym_direct_variable, 7675), (sym_deref_expression, 2373),
     (sym_variable, 7599), (sym_var_access, 2373), (sym_in_out_decls, 3160), (sym_var_decls, 3160),
     (sym_retain_var_decls, 3160), (sym_temp_var_decls, 3160), (sym_external_var_decls, 3160),
     (sym_global_var_decls, 2947), (sym_loc_partly_var_decl, 3160), (sym__fb_variables, 452),
     (sym_fb_input_decls, 3160), (sym_fb_output_decls, 3160), (sym_no_retain_var_decls, 3160),
     (sym_fb_body, 9314), (sym_method_decl, 454), (sym_prog_access_decls, 3043), (sym_SFC, 7970),
     (sym_SFC_network, 7612), (sym_initial_step, 7439), (sym_config_init, 3047),
     (sym_using_directive, 257), (sym_variable_access, 7530), (sym_func_call, 2961),
     (sym_stmt_list, 7970), (sym__stmt, 2024), (sym_assign, 3150), (sym_if_stmt, 3150),
     (sym_case_stmt, 3150), (sym_for_stmt, 3150), (sym_while_stmt, 3150), (sym_repeat_stmt, 3150),
     (sym_raise_stmt, 3150), (sym_try_stmt, 3150), (sym_ERR_clause_outside_try, 3150),
     (sym_begin_path_expression, 2943), (sym_invocation, 2934), (sym_any_invocation, 2935),
     (sym_this_invocation, 2641), (sym_super_invocation, 2641), (sym_super_body_invocation, 2935),
     (sym_path_expression, 2627), (sym_field_expression, 2373), (sym_index_expression, 2373),
     (sym_ladder_diagram, 7970), (sym_fb_diagram, 7970),
     (aux_sym_ERR_fb_variables_after_method_repeat1, 452), (aux_sym_func_decl_repeat1, 7194),
     (aux_sym_func_decl_repeat2, 257), (aux_sym_fb_decl_repeat2, 2978),
     (aux_sym_fb_decl_repeat3, 454), (aux_sym_SFC_repeat1, 7612), (aux_sym_stmt_list_repeat1, 2024),
     (aux_sym_ladder_diagram_repeat1, 8009), (aux_sym_fb_diagram_repeat1, 8013),
     (sym_identifier, 298), (aux_sym_ERR_implements_before_extends_token1, 486),
     (aux_sym_ERR_unexpected_this_in_path_token1, 304),
     (aux_sym_ERR_unexpected_super_in_path_token1, 306), (sym_line_comment, 3),
     (anon_sym_LBRACE, 308), (aux_sym_test_pragma_token1, 9), (aux_sym_once_pragma_token1, 11),
     (aux_sym_must_call_pragma_token1, 13), (aux_sym_export_pragma_token1, 15),
     (anon_sym_SEMI, 310), (anon_sym_PERCENT, 312), (aux_sym_input_decls_token1, 314),
     (aux_sym_output_decls_token1, 316), (aux_sym_in_out_decls_token1, 318),
     (aux_sym_var_decls_token1, 320), (aux_sym_temp_var_decls_token1, 322),
     (aux_sym_external_var_decls_token1, 324), (aux_sym_global_var_decls_token1, 326),
     (aux_sym_fb_decl_token4, 530), (aux_sym_method_decl_token1, 330),
     (aux_sym_prog_access_decls_token1, 332), (aux_sym_initial_step_token1, 334),
     (aux_sym_config_init_token1, 336), (aux_sym_using_directive_token1, 338),
     (aux_sym__stmt_token1, 340), (aux_sym__stmt_token2, 340), (aux_sym__stmt_token3, 340),
     (aux_sym_if_stmt_token1, 342), (aux_sym_case_stmt_token1, 344), (aux_sym_for_stmt_token1, 346),
     (aux_sym_while_stmt_token1, 348), (aux_sym_repeat_stmt_token1, 350),
     (aux_sym_raise_stmt_token1, 352), (aux_sym_try_stmt_token1, 354),
     (aux_sym_try_stmt_token2, 356), (aux_sym_catch_clause_token1, 356),
     (aux_sym_finally_clause_token1, 356), (sym_ld_rung, 358), (sym_fbd_network, 360),
     (sym_c_style_comment, 3), (sym_pascal_style_comment, 3), (sym_pragma, 3)]"

lemma ts_parse_row_144_scan: "row_scan tokens_63_2 0 ts_parse_row_144 = Some (Suc (Suc (Suc (Suc 0))))"
  unfolding ts_parse_row_144_def by simp

text \<open>Lines 70924 to 71042.\<close>

definition ts_parse_row_145 :: parse_row where
  "ts_parse_row_145 =
    [(sym_ERR_implements_multiple_times, 2978), (sym_ERR_assign_func_call, 7530),
     (sym_ERR_unexpected_this_in_path, 2372), (sym_ERR_unexpected_super_in_path, 2372),
     (sym_ERR_fb_variables_after_method, 1934), (sym_ERR_var_access_not_allowed, 3160),
     (sym_ERR_var_config_not_allowed, 3160), (sym_ERR_var_global_not_allowed, 3160),
     (sym_ERR_method_decl_in_body, 3150), (sym_extern_pragma, 7490), (sym_wasm_pragma, 3150),
     (sym_warn_pragma, 7490), (sym_allow_pragma, 3140), (sym_test_pragma, 7490),
     (sym_once_pragma, 7490), (sym_must_call_pragma, 7490), (sym_export_pragma, 7490),
     (sym_pou_pragma, 7194), (sym_direct_variable, 7675), (sym_deref_expression, 2373),
     (sym_variable, 7599), (sym_var_access, 2373), (sym_in_out_decls, 3160), (sym_var_decls, 3160),
     (sym_retain_var_decls, 3160), (sym_temp_var_decls, 3160), (sym_external_var_decls, 3160),
     (sym_global_var_decls, 2947), (sym_loc_partly_var_decl, 3160), (sym__fb_variables, 458),
     (sym_fb_input_decls, 3160), (sym_fb_output_decls, 3160), (sym_no_retain_var_decls, 3160),
     (sym_fb_body, 9406), (sym_method_decl, 460), (sym_prog_access_decls, 3043), (sym_SFC, 7970),
     (sym_SFC_network, 7612), (sym_initial_step, 7439), (sym_config_init, 3047),
     (sym_using_directive, 229), (sym_variable_access, 7530), (sym_func_call, 2961),
     (sym_stmt_list, 7970), (sym__stmt, 2024), (sym_assign, 3150), (sym_if_stmt, 3150),
     (sym_case_stmt, 3150), (sym_for_stmt, 3150), (sym_while_stmt, 3150), (sym_repeat_stmt, 3150),
     (sym_raise_stmt, 3150), (sym_try_stmt, 3150), (sym_ERR_clause_outside_try, 3150),
     (sym_begin_path_expression, 2943), (sym_invocation, 2934), (sym_any_invocation, 2935),
     (sym_this_invocation, 2641), (sym_super_invocation, 2641), (sym_super_body_invocation, 2935),
     (sym_path_expression, 2627), (sym_field_expression, 2373), (sym_index_expression, 2373),
     (sym_ladder_diagram, 7970), (sym_fb_diagram, 7970),
     (aux_sym_ERR_fb_variables_after_method_repeat1, 458), (aux_sym_func_decl_repeat1, 7194),
     (aux_sym_func_decl_repeat2, 229), (aux_sym_fb_decl_repeat2, 2978),
     (aux_sym_fb_decl_repeat3, 460), (aux_sym_SFC_repeat1, 7612), (aux_sym_stmt_list_repeat1, 2024),
     (aux_sym_ladder_diagram_repeat1, 8009), (aux_sym_fb_diagram_repeat1, 8013),
     (sym_identifier, 298), (aux_sym_ERR_implements_before_extends_token1, 486),
     (aux_sym_ERR_unexpected_this_in_path_token1, 304),
     (aux_sym_ERR_unexpected_super_in_path_token1, 306), (sym_line_comment, 3),
     (anon_sym_LBRACE, 308), (aux_sym_test_pragma_token1, 9), (aux_sym_once_pragma_token1, 11),
     (aux_sym_must_call_pragma_token1, 13), (aux_sym_export_pragma_token1, 15),
     (anon_sym_SEMI, 310), (anon_sym_PERCENT, 312), (aux_sym_input_decls_token1, 314),
     (aux_sym_output_decls_token1, 316), (aux_sym_in_out_decls_token1, 318),
     (aux_sym_var_decls_token1, 320), (aux_sym_temp_var_decls_token1, 322),
     (aux_sym_external_var_decls_token1, 324), (aux_sym_global_var_decls_token1, 326),
     (aux_sym_fb_decl_token4, 532), (aux_sym_method_decl_token1, 330),
     (aux_sym_prog_access_decls_token1, 332), (aux_sym_initial_step_token1, 334),
     (aux_sym_config_init_token1, 336), (aux_sym_using_directive_token1, 338),
     (aux_sym__stmt_token1, 340), (aux_sym__stmt_token2, 340), (aux_sym__stmt_token3, 340),
     (aux_sym_if_stmt_token1, 342), (aux_sym_case_stmt_token1, 344), (aux_sym_for_stmt_token1, 346),
     (aux_sym_while_stmt_token1, 348), (aux_sym_repeat_stmt_token1, 350),
     (aux_sym_raise_stmt_token1, 352), (aux_sym_try_stmt_token1, 354),
     (aux_sym_try_stmt_token2, 356), (aux_sym_catch_clause_token1, 356),
     (aux_sym_finally_clause_token1, 356), (sym_ld_rung, 358), (sym_fbd_network, 360),
     (sym_c_style_comment, 3), (sym_pascal_style_comment, 3), (sym_pragma, 3)]"

lemma ts_parse_row_145_scan: "row_scan tokens_63_2 0 ts_parse_row_145 = Some (Suc (Suc (Suc (Suc 0))))"
  unfolding ts_parse_row_145_def by simp

text \<open>Lines 71043 to 71161.\<close>

definition ts_parse_row_146 :: parse_row where
  "ts_parse_row_146 =
    [(sym_ERR_implements_multiple_times, 2978), (sym_ERR_assign_func_call, 7530),
     (sym_ERR_unexpected_this_in_path, 2372), (sym_ERR_unexpected_super_in_path, 2372),
     (sym_ERR_fb_variables_after_method, 1285), (sym_ERR_var_access_not_allowed, 3160),
     (sym_ERR_var_config_not_allowed, 3160), (sym_ERR_var_global_not_allowed, 3160),
     (sym_ERR_method_decl_in_body, 3150), (sym_extern_pragma, 7490), (sym_wasm_pragma, 3150),
     (sym_warn_pragma, 7490), (sym_allow_pragma, 3140), (sym_test_pragma, 7490),
     (sym_once_pragma, 7490), (sym_must_call_pragma, 7490), (sym_export_pragma, 7490),
     (sym_pou_pragma, 7194), (sym_direct_variable, 7675), (sym_deref_expression, 2373),
     (sym_variable, 7599), (sym_var_access, 2373), (sym_in_out_decls, 3160), (sym_var_decls, 3160),
     (sym_retain_var_decls, 3160), (sym_temp_var_decls, 3160), (sym_external_var_decls, 3160),
     (sym_global_var_decls, 2947), (sym_loc_partly_var_decl, 3160), (sym__fb_variables, 670),
     (sym_fb_input_decls, 3160), (sym_fb_output_decls, 3160), (sym_no_retain_var_decls, 3160),
     (sym_fb_body, 9703), (sym_method_decl, 679), (sym_prog_access_decls, 3043), (sym_SFC, 7970),
     (sym_SFC_network, 7612), (sym_initial_step, 7439), (sym_config_init, 3047),
     (sym_using_directive, 284), (sym_variable_access, 7530), (sym_func_call, 2961),
     (sym_stmt_list, 7970), (sym__stmt, 2024), (sym_assign, 3150), (sym_if_stmt, 3150),
     (sym_case_stmt, 3150), (sym_for_stmt, 3150), (sym_while_stmt, 3150), (sym_repeat_stmt, 3150),
     (sym_raise_stmt, 3150), (sym_try_stmt, 3150), (sym_ERR_clause_outside_try, 3150),
     (sym_begin_path_expression, 2943), (sym_invocation, 2934), (sym_any_invocation, 2935),
     (sym_this_invocation, 2641), (sym_super_invocation, 2641), (sym_super_body_invocation, 2935),
     (sym_path_expression, 2627), (sym_field_expression, 2373), (sym_index_expression, 2373),
     (sym_ladder_diagram, 7970), (sym_fb_diagram, 7970),
     (aux_sym_ERR_fb_variables_after_method_repeat1, 670), (aux_sym_func_decl_repeat1, 7194),
     (aux_sym_func_decl_repeat2, 284), (aux_sym_fb_decl_repeat2, 2978),
     (aux_sym_fb_decl_repeat3, 679), (aux_sym_SFC_repeat1, 7612), (aux_sym_stmt_list_repeat1, 2024),
     (aux_sym_ladder_diagram_repeat1, 8009), (aux_sym_fb_diagram_repeat1, 8013),
     (sym_identifier, 298), (aux_sym_ERR_implements_before_extends_token1, 486),
     (aux_sym_ERR_unexpected_this_in_path_token1, 304),
     (aux_sym_ERR_unexpected_super_in_path_token1, 306), (sym_line_comment, 3),
     (anon_sym_LBRACE, 308), (aux_sym_test_pragma_token1, 9), (aux_sym_once_pragma_token1, 11),
     (aux_sym_must_call_pragma_token1, 13), (aux_sym_export_pragma_token1, 15),
     (anon_sym_SEMI, 310), (anon_sym_PERCENT, 312), (aux_sym_input_decls_token1, 314),
     (aux_sym_output_decls_token1, 316), (aux_sym_in_out_decls_token1, 318),
     (aux_sym_var_decls_token1, 320), (aux_sym_temp_var_decls_token1, 322),
     (aux_sym_external_var_decls_token1, 324), (aux_sym_global_var_decls_token1, 326),
     (aux_sym_fb_decl_token4, 534), (aux_sym_method_decl_token1, 330),
     (aux_sym_prog_access_decls_token1, 332), (aux_sym_initial_step_token1, 334),
     (aux_sym_config_init_token1, 336), (aux_sym_using_directive_token1, 338),
     (aux_sym__stmt_token1, 340), (aux_sym__stmt_token2, 340), (aux_sym__stmt_token3, 340),
     (aux_sym_if_stmt_token1, 342), (aux_sym_case_stmt_token1, 344), (aux_sym_for_stmt_token1, 346),
     (aux_sym_while_stmt_token1, 348), (aux_sym_repeat_stmt_token1, 350),
     (aux_sym_raise_stmt_token1, 352), (aux_sym_try_stmt_token1, 354),
     (aux_sym_try_stmt_token2, 356), (aux_sym_catch_clause_token1, 356),
     (aux_sym_finally_clause_token1, 356), (sym_ld_rung, 358), (sym_fbd_network, 360),
     (sym_c_style_comment, 3), (sym_pascal_style_comment, 3), (sym_pragma, 3)]"

lemma ts_parse_row_146_scan: "row_scan tokens_63_2 0 ts_parse_row_146 = Some (Suc (Suc (Suc (Suc 0))))"
  unfolding ts_parse_row_146_def by simp

text \<open>Lines 71162 to 71280.\<close>

definition ts_parse_row_147 :: parse_row where
  "ts_parse_row_147 =
    [(sym_ERR_implements_multiple_times, 2978), (sym_ERR_assign_func_call, 7530),
     (sym_ERR_unexpected_this_in_path, 2372), (sym_ERR_unexpected_super_in_path, 2372),
     (sym_ERR_fb_variables_after_method, 1938), (sym_ERR_var_access_not_allowed, 3160),
     (sym_ERR_var_config_not_allowed, 3160), (sym_ERR_var_global_not_allowed, 3160),
     (sym_ERR_method_decl_in_body, 3150), (sym_extern_pragma, 7490), (sym_wasm_pragma, 3150),
     (sym_warn_pragma, 7490), (sym_allow_pragma, 3140), (sym_test_pragma, 7490),
     (sym_once_pragma, 7490), (sym_must_call_pragma, 7490), (sym_export_pragma, 7490),
     (sym_pou_pragma, 7194), (sym_direct_variable, 7675), (sym_deref_expression, 2373),
     (sym_variable, 7599), (sym_var_access, 2373), (sym_in_out_decls, 3160), (sym_var_decls, 3160),
     (sym_retain_var_decls, 3160), (sym_temp_var_decls, 3160), (sym_external_var_decls, 3160),
     (sym_global_var_decls, 2947), (sym_loc_partly_var_decl, 3160), (sym__fb_variables, 465),
     (sym_fb_input_decls, 3160), (sym_fb_output_decls, 3160), (sym_no_retain_var_decls, 3160),
     (sym_fb_body, 9552), (sym_method_decl, 468), (sym_prog_access_decls, 3043), (sym_SFC, 7970),
     (sym_SFC_network, 7612), (sym_initial_step, 7439), (sym_config_init, 3047),
     (sym_using_directive, 210), (sym_variable_access, 7530), (sym_func_call, 2961),
     (sym_stmt_list, 7970), (sym__stmt, 2024), (sym_assign, 3150), (sym_if_stmt, 3150),
     (sym_case_stmt, 3150), (sym_for_stmt, 3150), (sym_while_stmt, 3150), (sym_repeat_stmt, 3150),
     (sym_raise_stmt, 3150), (sym_try_stmt, 3150), (sym_ERR_clause_outside_try, 3150),
     (sym_begin_path_expression, 2943), (sym_invocation, 2934), (sym_any_invocation, 2935),
     (sym_this_invocation, 2641), (sym_super_invocation, 2641), (sym_super_body_invocation, 2935),
     (sym_path_expression, 2627), (sym_field_expression, 2373), (sym_index_expression, 2373),
     (sym_ladder_diagram, 7970), (sym_fb_diagram, 7970),
     (aux_sym_ERR_fb_variables_after_method_repeat1, 465), (aux_sym_func_decl_repeat1, 7194),
     (aux_sym_func_decl_repeat2, 210), (aux_sym_fb_decl_repeat2, 2978),
     (aux_sym_fb_decl_repeat3, 468), (aux_sym_SFC_repeat1, 7612), (aux_sym_stmt_list_repeat1, 2024),
     (aux_sym_ladder_diagram_repeat1, 8009), (aux_sym_fb_diagram_repeat1, 8013),
     (sym_identifier, 298), (aux_sym_ERR_implements_before_extends_token1, 486),
     (aux_sym_ERR_unexpected_this_in_path_token1, 304),
     (aux_sym_ERR_unexpected_super_in_path_token1, 306), (sym_line_comment, 3),
     (anon_sym_LBRACE, 308), (aux_sym_test_pragma_token1, 9), (aux_sym_once_pragma_token1, 11),
     (aux_sym_must_call_pragma_token1, 13), (aux_sym_export_pragma_token1, 15),
     (anon_sym_SEMI, 310), (anon_sym_PERCENT, 312), (aux_sym_input_decls_token1, 314),
     (aux_sym_output_decls_token1, 316), (aux_sym_in_out_decls_token1, 318),
     (aux_sym_var_decls_token1, 320), (aux_sym_temp_var_decls_token1, 322),
     (aux_sym_external_var_decls_token1, 324), (aux_sym_global_var_decls_token1, 326),
     (aux_sym_fb_decl_token4, 384), (aux_sym_method_decl_token1, 330),
     (aux_sym_prog_access_decls_token1, 332), (aux_sym_initial_step_token1, 334),
     (aux_sym_config_init_token1, 336), (aux_sym_using_directive_token1, 338),
     (aux_sym__stmt_token1, 340), (aux_sym__stmt_token2, 340), (aux_sym__stmt_token3, 340),
     (aux_sym_if_stmt_token1, 342), (aux_sym_case_stmt_token1, 344), (aux_sym_for_stmt_token1, 346),
     (aux_sym_while_stmt_token1, 348), (aux_sym_repeat_stmt_token1, 350),
     (aux_sym_raise_stmt_token1, 352), (aux_sym_try_stmt_token1, 354),
     (aux_sym_try_stmt_token2, 356), (aux_sym_catch_clause_token1, 356),
     (aux_sym_finally_clause_token1, 356), (sym_ld_rung, 358), (sym_fbd_network, 360),
     (sym_c_style_comment, 3), (sym_pascal_style_comment, 3), (sym_pragma, 3)]"

lemma ts_parse_row_147_scan: "row_scan tokens_63_2 0 ts_parse_row_147 = Some (Suc (Suc (Suc (Suc 0))))"
  unfolding ts_parse_row_147_def by simp

text \<open>Lines 71281 to 71399.\<close>

definition ts_parse_row_148 :: parse_row where
  "ts_parse_row_148 =
    [(sym_ERR_implements_multiple_times, 168), (sym_ERR_assign_func_call, 7530),
     (sym_ERR_unexpected_this_in_path, 2372), (sym_ERR_unexpected_super_in_path, 2372),
     (sym_ERR_fb_variables_after_method, 1941), (sym_ERR_var_access_not_allowed, 3160),
     (sym_ERR_var_config_not_allowed, 3160), (sym_ERR_var_global_not_allowed, 3160),
     (sym_ERR_method_decl_in_body, 3150), (sym_extern_pragma, 7490), (sym_wasm_pragma, 3150),
     (sym_warn_pragma, 7490), (sym_allow_pragma, 3140), (sym_test_pragma, 7490),
     (sym_once_pragma, 7490), (sym_must_call_pragma, 7490), (sym_export_pragma, 7490),
     (sym_pou_pragma, 7194), (sym_direct_variable, 7675), (sym_deref_expression, 2373),
     (sym_variable, 7599), (sym_var_access, 2373), (sym_in_out_decls, 3160), (sym_var_decls, 3160),
     (sym_retain_var_decls, 3160), (sym_temp_var_decls, 3160), (sym_external_var_decls, 3160),
     (sym_global_var_decls, 2947), (sym_loc_partly_var_decl, 3160), (sym__fb_variables, 469),
     (sym_fb_input_decls, 3160), (sym_fb_output_decls, 3160), (sym_no_retain_var_decls, 3160),
     (sym_fb_body, 9756), (sym_method_decl, 472), (sym_prog_access_decls, 3043), (sym_SFC, 7970),
     (sym_SFC_network, 7612), (sym_initial_step, 7439), (sym_config_init, 3047),
     (sym_using_directive, 212), (sym_variable_access, 7530), (sym_func_call, 2961),
     (sym_stmt_list, 7970), (sym__stmt, 2024), (sym_assign, 3150), (sym_if_stmt, 3150),
     (sym_case_stmt, 3150), (sym_for_stmt, 3150), (sym_while_stmt, 3150), (sym_repeat_stmt, 3150),
     (sym_raise_stmt, 3150), (sym_try_stmt, 3150), (sym_ERR_clause_outside_try, 3150),
     (sym_begin_path_expression, 2943), (sym_invocation, 2934), (sym_any_invocation, 2935),
     (sym_this_invocation, 2641), (sym_super_invocation, 2641), (sym_super_body_invocation, 2935),
     (sym_path_expression, 2627), (sym_field_expression, 2373), (sym_index_expression, 2373),
     (sym_ladder_diagram, 7970), (sym_fb_diagram, 7970),
     (aux_sym_ERR_fb_variables_after_method_repeat1, 469), (aux_sym_func_decl_repeat1, 7194),
     (aux_sym_func_decl_repeat2, 212), (aux_sym_fb_decl_repeat2, 168),
     (aux_sym_fb_decl_repeat3, 472), (aux_sym_SFC_repeat1, 7612), (aux_sym_stmt_list_repeat1, 2024),
     (aux_sym_ladder_diagram_repeat1, 8009), (aux_sym_fb_diagram_repeat1, 8013),
     (sym_identifier, 298), (aux_sym_ERR_implements_before_extends_token1, 486),
     (aux_sym_ERR_unexpected_this_in_path_token1, 304),
     (aux_sym_ERR_unexpected_super_in_path_token1, 306), (sym_line_comment, 3),
     (anon_sym_LBRACE, 308), (aux_sym_test_pragma_token1, 9), (aux_sym_once_pragma_token1, 11),
     (aux_sym_must_call_pragma_token1, 13), (aux_sym_export_pragma_token1, 15),
     (anon_sym_SEMI, 310), (anon_sym_PERCENT, 312), (aux_sym_input_decls_token1, 314),
     (aux_sym_output_decls_token1, 316), (aux_sym_in_out_decls_token1, 318),
     (aux_sym_var_decls_token1, 320), (aux_sym_temp_var_decls_token1, 322),
     (aux_sym_external_var_decls_token1, 324), (aux_sym_global_var_decls_token1, 326),
     (aux_sym_fb_decl_token4, 536), (aux_sym_method_decl_token1, 330),
     (aux_sym_prog_access_decls_token1, 332), (aux_sym_initial_step_token1, 334),
     (aux_sym_config_init_token1, 336), (aux_sym_using_directive_token1, 338),
     (aux_sym__stmt_token1, 340), (aux_sym__stmt_token2, 340), (aux_sym__stmt_token3, 340),
     (aux_sym_if_stmt_token1, 342), (aux_sym_case_stmt_token1, 344), (aux_sym_for_stmt_token1, 346),
     (aux_sym_while_stmt_token1, 348), (aux_sym_repeat_stmt_token1, 350),
     (aux_sym_raise_stmt_token1, 352), (aux_sym_try_stmt_token1, 354),
     (aux_sym_try_stmt_token2, 356), (aux_sym_catch_clause_token1, 356),
     (aux_sym_finally_clause_token1, 356), (sym_ld_rung, 358), (sym_fbd_network, 360),
     (sym_c_style_comment, 3), (sym_pascal_style_comment, 3), (sym_pragma, 3)]"

lemma ts_parse_row_148_scan: "row_scan tokens_63_2 0 ts_parse_row_148 = Some (Suc (Suc (Suc (Suc 0))))"
  unfolding ts_parse_row_148_def by simp

text \<open>Lines 71400 to 71518.\<close>

definition ts_parse_row_149 :: parse_row where
  "ts_parse_row_149 =
    [(sym_ERR_implements_multiple_times, 2978), (sym_ERR_assign_func_call, 7530),
     (sym_ERR_unexpected_this_in_path, 2372), (sym_ERR_unexpected_super_in_path, 2372),
     (sym_ERR_fb_variables_after_method, 1383), (sym_ERR_var_access_not_allowed, 3160),
     (sym_ERR_var_config_not_allowed, 3160), (sym_ERR_var_global_not_allowed, 3160),
     (sym_ERR_method_decl_in_body, 3150), (sym_extern_pragma, 7490), (sym_wasm_pragma, 3150),
     (sym_warn_pragma, 7490), (sym_allow_pragma, 3140), (sym_test_pragma, 7490),
     (sym_once_pragma, 7490), (sym_must_call_pragma, 7490), (sym_export_pragma, 7490),
     (sym_pou_pragma, 7194), (sym_direct_variable, 7675), (sym_deref_expression, 2373),
     (sym_variable, 7599), (sym_var_access, 2373), (sym_in_out_decls, 3160), (sym_var_decls, 3160),
     (sym_retain_var_decls, 3160), (sym_temp_var_decls, 3160), (sym_external_var_decls, 3160),
     (sym_global_var_decls, 2947), (sym_loc_partly_var_decl, 3160), (sym__fb_variables, 866),
     (sym_fb_input_decls, 3160), (sym_fb_output_decls, 3160), (sym_no_retain_var_decls, 3160),
     (sym_fb_body, 9772), (sym_method_decl, 869), (sym_prog_access_decls, 3043), (sym_SFC, 7970),
     (sym_SFC_network, 7612), (sym_initial_step, 7439), (sym_config_init, 3047),
     (sym_using_directive, 270), (sym_variable_access, 7530), (sym_func_call, 2961),
     (sym_stmt_list, 7970), (sym__stmt, 2024), (sym_assign, 3150), (sym_if_stmt, 3150),
     (sym_case_stmt, 3150), (sym_for_stmt, 3150), (sym_while_stmt, 3150), (sym_repeat_stmt, 3150),
     (sym_raise_stmt, 3150), (sym_try_stmt, 3150), (sym_ERR_clause_outside_try, 3150),
     (sym_begin_path_expression, 2943), (sym_invocation, 2934), (sym_any_invocation, 2935),
     (sym_this_invocation, 2641), (sym_super_invocation, 2641), (sym_super_body_invocation, 2935),
     (sym_path_expression, 2627), (sym_field_expression, 2373), (sym_index_expression, 2373),
     (sym_ladder_diagram, 7970), (sym_fb_diagram, 7970),
     (aux_sym_ERR_fb_variables_after_method_repeat1, 866), (aux_sym_func_decl_repeat1, 7194),
     (aux_sym_func_decl_repeat2, 270), (aux_sym_fb_decl_repeat2, 2978),
     (aux_sym_fb_decl_repeat3, 869), (aux_sym_SFC_repeat1, 7612), (aux_sym_stmt_list_repeat1, 2024),
     (aux_sym_ladder_diagram_repeat1, 8009), (aux_sym_fb_diagram_repeat1, 8013),
     (sym_identifier, 298), (aux_sym_ERR_implements_before_extends_token1, 486),
     (aux_sym_ERR_unexpected_this_in_path_token1, 304),
     (aux_sym_ERR_unexpected_super_in_path_token1, 306), (sym_line_comment, 3),
     (anon_sym_LBRACE, 308), (aux_sym_test_pragma_token1, 9), (aux_sym_once_pragma_token1, 11),
     (aux_sym_must_call_pragma_token1, 13), (aux_sym_export_pragma_token1, 15),
     (anon_sym_SEMI, 310), (anon_sym_PERCENT, 312), (aux_sym_input_decls_token1, 314),
     (aux_sym_output_decls_token1, 316), (aux_sym_in_out_decls_token1, 318),
     (aux_sym_var_decls_token1, 320), (aux_sym_temp_var_decls_token1, 322),
     (aux_sym_external_var_decls_token1, 324), (aux_sym_global_var_decls_token1, 326),
     (aux_sym_fb_decl_token4, 448), (aux_sym_method_decl_token1, 330),
     (aux_sym_prog_access_decls_token1, 332), (aux_sym_initial_step_token1, 334),
     (aux_sym_config_init_token1, 336), (aux_sym_using_directive_token1, 338),
     (aux_sym__stmt_token1, 340), (aux_sym__stmt_token2, 340), (aux_sym__stmt_token3, 340),
     (aux_sym_if_stmt_token1, 342), (aux_sym_case_stmt_token1, 344), (aux_sym_for_stmt_token1, 346),
     (aux_sym_while_stmt_token1, 348), (aux_sym_repeat_stmt_token1, 350),
     (aux_sym_raise_stmt_token1, 352), (aux_sym_try_stmt_token1, 354),
     (aux_sym_try_stmt_token2, 356), (aux_sym_catch_clause_token1, 356),
     (aux_sym_finally_clause_token1, 356), (sym_ld_rung, 358), (sym_fbd_network, 360),
     (sym_c_style_comment, 3), (sym_pascal_style_comment, 3), (sym_pragma, 3)]"

lemma ts_parse_row_149_scan: "row_scan tokens_63_2 0 ts_parse_row_149 = Some (Suc (Suc (Suc (Suc 0))))"
  unfolding ts_parse_row_149_def by simp

definition parse_rows_1 :: "parse_row list" where
  "parse_rows_1 =
    [ts_parse_row_0, ts_parse_row_1, ts_parse_row_2, ts_parse_row_3, ts_parse_row_4, ts_parse_row_5,
     ts_parse_row_6, ts_parse_row_7, ts_parse_row_8, ts_parse_row_9, ts_parse_row_10,
     ts_parse_row_11, ts_parse_row_12, ts_parse_row_13, ts_parse_row_14, ts_parse_row_15,
     ts_parse_row_16, ts_parse_row_17, ts_parse_row_18, ts_parse_row_19, ts_parse_row_20,
     ts_parse_row_21, ts_parse_row_22, ts_parse_row_23, ts_parse_row_24, ts_parse_row_25,
     ts_parse_row_26, ts_parse_row_27, ts_parse_row_28, ts_parse_row_29, ts_parse_row_30,
     ts_parse_row_31, ts_parse_row_32, ts_parse_row_33, ts_parse_row_34, ts_parse_row_35,
     ts_parse_row_36, ts_parse_row_37, ts_parse_row_38, ts_parse_row_39, ts_parse_row_40,
     ts_parse_row_41, ts_parse_row_42, ts_parse_row_43, ts_parse_row_44, ts_parse_row_45,
     ts_parse_row_46, ts_parse_row_47, ts_parse_row_48, ts_parse_row_49, ts_parse_row_50,
     ts_parse_row_51, ts_parse_row_52, ts_parse_row_53, ts_parse_row_54, ts_parse_row_55,
     ts_parse_row_56, ts_parse_row_57, ts_parse_row_58, ts_parse_row_59, ts_parse_row_60,
     ts_parse_row_61, ts_parse_row_62, ts_parse_row_63, ts_parse_row_64, ts_parse_row_65,
     ts_parse_row_66, ts_parse_row_67, ts_parse_row_68, ts_parse_row_69, ts_parse_row_70,
     ts_parse_row_71, ts_parse_row_72, ts_parse_row_73, ts_parse_row_74, ts_parse_row_75,
     ts_parse_row_76, ts_parse_row_77, ts_parse_row_78, ts_parse_row_79, ts_parse_row_80,
     ts_parse_row_81, ts_parse_row_82, ts_parse_row_83, ts_parse_row_84, ts_parse_row_85,
     ts_parse_row_86, ts_parse_row_87, ts_parse_row_88, ts_parse_row_89, ts_parse_row_90,
     ts_parse_row_91, ts_parse_row_92, ts_parse_row_93, ts_parse_row_94, ts_parse_row_95,
     ts_parse_row_96, ts_parse_row_97, ts_parse_row_98, ts_parse_row_99, ts_parse_row_100,
     ts_parse_row_101, ts_parse_row_102, ts_parse_row_103, ts_parse_row_104, ts_parse_row_105,
     ts_parse_row_106, ts_parse_row_107, ts_parse_row_108, ts_parse_row_109, ts_parse_row_110,
     ts_parse_row_111, ts_parse_row_112, ts_parse_row_113, ts_parse_row_114, ts_parse_row_115,
     ts_parse_row_116, ts_parse_row_117, ts_parse_row_118, ts_parse_row_119, ts_parse_row_120,
     ts_parse_row_121, ts_parse_row_122, ts_parse_row_123, ts_parse_row_124, ts_parse_row_125,
     ts_parse_row_126, ts_parse_row_127, ts_parse_row_128, ts_parse_row_129, ts_parse_row_130,
     ts_parse_row_131, ts_parse_row_132, ts_parse_row_133, ts_parse_row_134, ts_parse_row_135,
     ts_parse_row_136, ts_parse_row_137, ts_parse_row_138, ts_parse_row_139, ts_parse_row_140,
     ts_parse_row_141, ts_parse_row_142, ts_parse_row_143, ts_parse_row_144, ts_parse_row_145,
     ts_parse_row_146, ts_parse_row_147, ts_parse_row_148, ts_parse_row_149]"

lemmas parse_rows_1_scan =
  ts_parse_row_0_scan ts_parse_row_1_scan ts_parse_row_2_scan ts_parse_row_3_scan
  ts_parse_row_4_scan ts_parse_row_5_scan ts_parse_row_6_scan ts_parse_row_7_scan
  ts_parse_row_8_scan ts_parse_row_9_scan ts_parse_row_10_scan ts_parse_row_11_scan
  ts_parse_row_12_scan ts_parse_row_13_scan ts_parse_row_14_scan ts_parse_row_15_scan
  ts_parse_row_16_scan ts_parse_row_17_scan ts_parse_row_18_scan ts_parse_row_19_scan
  ts_parse_row_20_scan ts_parse_row_21_scan ts_parse_row_22_scan ts_parse_row_23_scan
  ts_parse_row_24_scan ts_parse_row_25_scan ts_parse_row_26_scan ts_parse_row_27_scan
  ts_parse_row_28_scan ts_parse_row_29_scan ts_parse_row_30_scan ts_parse_row_31_scan
  ts_parse_row_32_scan ts_parse_row_33_scan ts_parse_row_34_scan ts_parse_row_35_scan
  ts_parse_row_36_scan ts_parse_row_37_scan ts_parse_row_38_scan ts_parse_row_39_scan
  ts_parse_row_40_scan ts_parse_row_41_scan ts_parse_row_42_scan ts_parse_row_43_scan
  ts_parse_row_44_scan ts_parse_row_45_scan ts_parse_row_46_scan ts_parse_row_47_scan
  ts_parse_row_48_scan ts_parse_row_49_scan ts_parse_row_50_scan ts_parse_row_51_scan
  ts_parse_row_52_scan ts_parse_row_53_scan ts_parse_row_54_scan ts_parse_row_55_scan
  ts_parse_row_56_scan ts_parse_row_57_scan ts_parse_row_58_scan ts_parse_row_59_scan
  ts_parse_row_60_scan ts_parse_row_61_scan ts_parse_row_62_scan ts_parse_row_63_scan
  ts_parse_row_64_scan ts_parse_row_65_scan ts_parse_row_66_scan ts_parse_row_67_scan
  ts_parse_row_68_scan ts_parse_row_69_scan ts_parse_row_70_scan ts_parse_row_71_scan
  ts_parse_row_72_scan ts_parse_row_73_scan ts_parse_row_74_scan ts_parse_row_75_scan
  ts_parse_row_76_scan ts_parse_row_77_scan ts_parse_row_78_scan ts_parse_row_79_scan
  ts_parse_row_80_scan ts_parse_row_81_scan ts_parse_row_82_scan ts_parse_row_83_scan
  ts_parse_row_84_scan ts_parse_row_85_scan ts_parse_row_86_scan ts_parse_row_87_scan
  ts_parse_row_88_scan ts_parse_row_89_scan ts_parse_row_90_scan ts_parse_row_91_scan
  ts_parse_row_92_scan ts_parse_row_93_scan ts_parse_row_94_scan ts_parse_row_95_scan
  ts_parse_row_96_scan ts_parse_row_97_scan ts_parse_row_98_scan ts_parse_row_99_scan
  ts_parse_row_100_scan ts_parse_row_101_scan ts_parse_row_102_scan ts_parse_row_103_scan
  ts_parse_row_104_scan ts_parse_row_105_scan ts_parse_row_106_scan ts_parse_row_107_scan
  ts_parse_row_108_scan ts_parse_row_109_scan ts_parse_row_110_scan ts_parse_row_111_scan
  ts_parse_row_112_scan ts_parse_row_113_scan ts_parse_row_114_scan ts_parse_row_115_scan
  ts_parse_row_116_scan ts_parse_row_117_scan ts_parse_row_118_scan ts_parse_row_119_scan
  ts_parse_row_120_scan ts_parse_row_121_scan ts_parse_row_122_scan ts_parse_row_123_scan
  ts_parse_row_124_scan ts_parse_row_125_scan ts_parse_row_126_scan ts_parse_row_127_scan
  ts_parse_row_128_scan ts_parse_row_129_scan ts_parse_row_130_scan ts_parse_row_131_scan
  ts_parse_row_132_scan ts_parse_row_133_scan ts_parse_row_134_scan ts_parse_row_135_scan
  ts_parse_row_136_scan ts_parse_row_137_scan ts_parse_row_138_scan ts_parse_row_139_scan
  ts_parse_row_140_scan ts_parse_row_141_scan ts_parse_row_142_scan ts_parse_row_143_scan
  ts_parse_row_144_scan ts_parse_row_145_scan ts_parse_row_146_scan ts_parse_row_147_scan
  ts_parse_row_148_scan ts_parse_row_149_scan

end
