(* ===== verification/Parse_Table_2.thy ===== *)
theory Parse_Table_2
  imports Parse_Cells
begin

text \<open>
  The rows 150 to 299 of \<open>ts_parse_table\<close> in \<open>src/crates/tree-sitter/src/parser.c\<close>, and the check of each
  against the tokens of its mode.
\<close>

text \<open>Lines 71519 to 71637.\<close>

definition ts_parse_row_150 :: parse_row where
  "ts_parse_row_150 =
    [(sym_ERR_implements_multiple_times, 2978), (sym_ERR_assign_func_call, 7530),
     (sym_ERR_unexpected_this_in_path, 2372), (sym_ERR_unexpected_super_in_path, 2372),
     (sym_ERR_fb_variables_after_method, 1967), (sym_ERR_var_access_not_allowed, 3160),
     (sym_ERR_var_config_not_allowed, 3160), (sym_ERR_var_global_not_allowed, 3160),
     (sym_ERR_method_decl_in_body, 3150), (sym_extern_pragma, 7490), (sym_wasm_pragma, 3150),
     (sym_warn_pragma, 7490), (sym_allow_pragma, 3140), (sym_test_pragma, 7490),
     (sym_once_pragma, 7490), (sym_must_call_pragma, 7490), (sym_export_pragma, 7490),
     (sym_pou_pragma, 7194), (sym_direct_variable, 7675), (sym_deref_expression, 2373),
     (sym_variable, 7599), (sym_var_access, 2373), (sym_in_out_decls, 3160), (sym_var_decls, 3160),
     (sym_retain_var_decls, 3160), (sym_temp_var_decls, 3160), (sym_external_var_decls, 3160),
     (sym_global_var_decls, 2947), (sym_loc_partly_var_decl, 3160), (sym__fb_variables, 858),
     (sym_fb_input_decls, 3160), (sym_fb_output_decls, 3160), (sym_no_retain_var_decls, 3160),
     (sym_fb_body, 8677), (sym_method_decl, 311), (sym_prog_access_decls, 3043), (sym_SFC, 7970),
     (sym_SFC_network, 7612), (sym_initial_step, 7439), (sym_config_init, 3047),
     (sym_using_directive, 282), (sym_variable_access, 7530), (sym_func_call, 2961),
     (sym_stmt_list, 7970), (sym__stmt, 2024), (sym_assign, 3150), (sym_if_stmt, 3150),
     (sym_case_stmt, 3150), (sym_for_stmt, 3150), (sym_while_stmt, 3150), (sym_repeat_stmt, 3150),
     (sym_raise_stmt, 3150), (sym_try_stmt, 3150), (sym_ERR_clause_outside_try, 3150),
     (sym_begin_path_expression, 2943), (sym_invocation, 2934), (sym_any_invocation, 2935),
     (sym_this_invocation, 2641), (sym_super_invocation, 2641), (sym_super_body_invocation, 2935),
     (sym_path_expression, 2627), (sym_field_expression, 2373), (sym_index_expression, 2373),
     (sym_ladder_diagram, 7970), (sym_fb_diagram, 7970),
     (aux_sym_ERR_fb_variables_after_method_repeat1, 858), (aux_sym_func_decl_repeat1, 7194),
     (aux_sym_func_decl_repeat2, 282), (aux_sym_fb_decl_repeat2, 2978),
     (aux_sym_fb_decl_repeat3, 311), (aux_sym_SFC_repeat1, 7612), (aux_sym_stmt_list_repeat1, 2024),
     (aux_sym_ladder_diagram_repeat1, 8009), (aux_sym_fb_diagram_repeat1, 8013),
     (sym_identifier, 298), (aux_sym_ERR_implements_before_extends_token1, 486),
     (aux_sym_ERR_unexpected_this_in_path_token1, 304),
     (aux_sym_ERR_unexpected_super_in_path_token1, 306), (sym_line_comment, 3),
     (anon_sym_LBRACE, 308), (aux_sym_test_pragma_token1, 9), (aux_sym_once_pragma_token1, 11),
     (aux_sym_must_call_pragma_token1, 13), (aux_sym_export_pragma_token1, 15),
     (anon_sym_SEMI, 310), (anon_sym_PERCENT, 312), (aux_sym_input_decls_token1, 314),
     (aux_sym_output_decls_token1, 316), (aux_sym_in_out_decls_token1, 318),
     (aux_sym_var_decls_token1, 320), (aux_sym_temp_var_decls_token1, 322),
     (aux_sym_external_var_decls_token1, 324), (aux_sym_global_var_decls_token1, 326),
     (aux_sym_fb_decl_token4, 402), (aux_sym_method_decl_token1, 330),
     (aux_sym_prog_access_decls_token1, 332), (aux_sym_initial_step_token1, 334),
     (aux_sym_config_init_token1, 336), (aux_sym_using_directive_token1, 338),
     (aux_sym__stmt_token1, 340), (aux_sym__stmt_token2, 340), (aux_sym__stmt_token3, 340),
     (aux_sym_if_stmt_token1, 342), (aux_sym_case_stmt_token1, 344), (aux_sym_for_stmt_token1, 346),
     (aux_sym_while_stmt_token1, 348), (aux_sym_repeat_stmt_token1, 350),
     (aux_sym_raise_stmt_token1, 352), (aux_sym_try_stmt_token1, 354),
     (aux_sym_try_stmt_token2, 356), (aux_sym_catch_clause_token1, 356),
     (aux_sym_finally_clause_token1, 356), (sym_ld_rung, 358), (sym_fbd_network, 360),
     (sym_c_style_comment, 3), (sym_pascal_style_comment, 3), (sym_pragma, 3)]"

lemma ts_parse_row_150_scan: "row_scan tokens_63_2 0 ts_parse_row_150 = Some (Suc (Suc (Suc (Suc 0))))"
  unfolding ts_parse_row_150_def by simp

text \<open>Lines 71638 to 71756.\<close>

definition ts_parse_row_151 :: parse_row where
  "ts_parse_row_151 =
    [(sym_ERR_implements_multiple_times, 2978), (sym_ERR_assign_func_call, 7530),
     (sym_ERR_unexpected_this_in_path, 2372), (sym_ERR_unexpected_super_in_path, 2372),
     (sym_ERR_fb_variables_after_method, 1961), (sym_ERR_var_access_not_allowed, 3160),
     (sym_ERR_var_config_not_allowed, 3160), (sym_ERR_var_global_not_allowed, 3160),
     (sym_ERR_method_decl_in_body, 3150), (sym_extern_pragma, 7490), (sym_wasm_pragma, 3150),
     (sym_warn_pragma, 7490), (sym_allow_pragma, 3140), (sym_test_pragma, 7490),
     (sym_once_pragma, 7490), (sym_must_call_pragma, 7490), (sym_export_pragma, 7490),
     (sym_pou_pragma, 7194), (sym_direct_variable, 7675), (sym_deref_expression, 2373),
     (sym_variable, 7599), (sym_var_access, 2373), (sym_in_out_decls, 3160), (sym_var_decls, 3160),
     (sym_retain_var_decls, 3160), (sym_temp_var_decls, 3160), (sym_external_var_decls, 3160),
     (sym_global_var_decls, 2947), (sym_loc_partly_var_decl, 3160), (sym__fb_variables, 482),
     (sym_fb_input_decls, 3160), (sym_fb_output_decls, 3160), (sym_no_retain_var_decls, 3160),
     (sym_fb_body, 8221), (sym_method_decl, 484), (sym_prog_access_decls, 3043), (sym_SFC, 7970),
     (sym_SFC_network, 7612), (sym_initial_step, 7439), (sym_config_init, 3047),
     (sym_using_directive, 215), (sym_variable_access, 7530), (sym_func_call, 2961),
     (sym_stmt_list, 7970), (sym__stmt, 2024), (sym_assign, 3150), (sym_if_stmt, 3150),
     (sym_case_stmt, 3150), (sym_for_stmt, 3150), (sym_while_stmt, 3150), (sym_repeat_stmt, 3150),
     (sym_raise_stmt, 3150), (sym_try_stmt, 3150), (sym_ERR_clause_outside_try, 3150),
     (sym_begin_path_expression, 2943), (sym_invocation, 2934), (sym_any_invocation, 2935),
     (sym_this_invocation, 2641), (sym_super_invocation, 2641), (sym_super_body_invocation, 2935),
     (sym_path_expression, 2627), (sym_field_expression, 2373), (sym_index_expression, 2373),
     (sym_ladder_diagram, 7970), (sym_fb_diagram, 7970),
     (aux_sym_ERR_fb_variables_after_method_repeat1, 482), (aux_sym_func_decl_repeat1, 7194),
     (aux_sym_func_decl_repeat2, 215), (aux_sym_fb_decl_repeat2, 2978),
     (aux_sym_fb_decl_repeat3, 484), (aux_sym_SFC_repeat1, 7612), (aux_sym_stmt_list_repeat1, 2024),
     (aux_sym_ladder_diagram_repeat1, 8009), (aux_sym_fb_diagram_repeat1, 8013),
     (sym_identifier, 298), (aux_sym_ERR_implements_before_extends_token1, 486),
     (aux_sym_ERR_unexpected_this_in_path_token1, 304),
     (aux_sym_ERR_unexpected_super_in_path_token1, 306), (sym_line_comment, 3),
     (anon_sym_LBRACE, 308), (aux_sym_test_pragma_token1, 9), (aux_sym_once_pragma_token1, 11),
     (aux_sym_must_call_pragma_token1, 13), (aux_sym_export_pragma_token1, 15),
     (anon_sym_SEMI, 310), (anon_sym_PERCENT, 312), (aux_sym_input_decls_token1, 314),
     (aux_sym_output_decls_token1, 316), (aux_sym_in_out_decls_token1, 318),
     (aux_sym_var_decls_token1, 320), (aux_sym_temp_var_decls_token1, 322),
     (aux_sym_external_var_decls_token1, 324), (aux_sym_global_var_decls_token1, 326),
     (aux_sym_fb_decl_token4, 538), (aux_sym_method_decl_token1, 330),
     (aux_sym_prog_access_decls_token1, 332), (aux_sym_initial_step_token1, 334),
     (aux_sym_config_init_token1, 336), (aux_sym_using_directive_token1, 338),
     (aux_sym__stmt_token1, 340), (aux_sym__stmt_token2, 340), (aux_sym__stmt_token3, 340),
     (aux_sym_if_stmt_token1, 342), (aux_sym_case_stmt_token1, 344), (aux_sym_for_stmt_token1, 346),
     (aux_sym_while_stmt_token1, 348), (aux_sym_repeat_stmt_token1, 350),
     (aux_sym_raise_stmt_token1, 352), (aux_sym_try_stmt_token1, 354),
     (aux_sym_try_stmt_token2, 356), (aux_sym_catch_clause_token1, 356),
     (aux_sym_finally_clause_token1, 356), (sym_ld_rung, 358), (sym_fbd_network, 360),
     (sym_c_style_comment, 3), (sym_pascal_style_comment, 3), (sym_pragma, 3)]"

lemma ts_parse_row_151_scan: "row_scan tokens_63_2 0 ts_parse_row_151 = Some (Suc (Suc (Suc (Suc 0))))"
  unfolding ts_parse_row_151_def by simp

text \<open>Lines 71757 to 71875.\<close>

definition ts_parse_row_152 :: parse_row where
  "ts_parse_row_152 =
    [(sym_ERR_implements_multiple_times, 169), (sym_ERR_assign_func_call, 7530),
     (sym_ERR_unexpected_this_in_path, 2372), (sym_ERR_unexpected_super_in_path, 2372),
     (sym_ERR_fb_variables_after_method, 1965), (sym_ERR_var_access_not_allowed, 3160),
     (sym_ERR_var_config_not_allowed, 3160), (sym_ERR_var_global_not_allowed, 3160),
     (sym_ERR_method_decl_in_body, 3150), (sym_extern_pragma, 7490), (sym_wasm_pragma, 3150),
     (sym_warn_pragma, 7490), (sym_allow_pragma, 3140), (sym_test_pragma, 7490),
     (sym_once_pragma, 7490), (sym_must_call_pragma, 7490), (sym_export_pragma, 7490),
     (sym_pou_pragma, 7194), (sym_direct_variable, 7675), (sym_deref_expression, 2373),
     (sym_variable, 7599), (sym_var_access, 2373), (sym_in_out_decls, 3160), (sym_var_decls, 3160),
     (sym_retain_var_decls, 3160), (sym_temp_var_decls, 3160), (sym_external_var_decls, 3160),
     (sym_global_var_decls, 2947), (sym_loc_partly_var_decl, 3160), (sym__fb_variables, 485),
     (sym_fb_input_decls, 3160), (sym_fb_output_decls, 3160), (sym_no_retain_var_decls, 3160),
     (sym_fb_body, 8288), (sym_method_decl, 488), (sym_prog_access_decls, 3043), (sym_SFC, 7970),
     (sym_SFC_network, 7612), (sym_initial_step, 7439), (sym_config_init, 3047),
     (sym_using_directive, 216), (sym_variable_access, 7530), (sym_func_call, 2961),
     (sym_stmt_list, 7970), (sym__stmt, 2024), (sym_assign, 3150), (sym_if_stmt, 3150),
     (sym_case_stmt, 3150), (sym_for_stmt, 3150), (sym_while_stmt, 3150), (sym_repeat_stmt, 3150),
     (sym_raise_stmt, 3150), (sym_try_stmt, 3150), (sym_ERR_clause_outside_try, 3150),
     (sym_begin_path_expression, 2943), (sym_invocation, 2934), (sym_any_invocation, 2935),
     (sym_this_invocation, 2641), (sym_super_invocation, 2641), (sym_super_body_invocation, 2935),
     (sym_path_expression, 2627), (sym_field_expression, 2373), (sym_index_expression, 2373),
     (sym_ladder_diagram, 7970), (sym_fb_diagram, 7970),
     (aux_sym_ERR_fb_variables_after_method_repeat1, 485), (aux_sym_func_decl_repeat1, 7194),
     (aux_sym_func_decl_repeat2, 216), (aux_sym_fb_decl_repeat2, 169),
     (aux_sym_fb_decl_repeat3, 488), (aux_sym_SFC_repeat1, 7612), (aux_sym_stmt_list_repeat1, 2024),
     (aux_sym_ladder_diagram_repeat1, 8009), (aux_sym_fb_diagram_repeat1, 8013),
     (sym_identifier, 298), (aux_sym_ERR_implements_before_extends_token1, 486),
     (aux_sym_ERR_unexpected_this_in_path_token1, 304),
     (aux_sym_ERR_unexpected_super_in_path_token1, 306), (sym_line_comment, 3),
     (anon_sym_LBRACE, 308), (aux_sym_test_pragma_token1, 9), (aux_sym_once_pragma_token1, 11),
     (aux_sym_must_call_pragma_token1, 13), (aux_sym_export_pragma_token1, 15),
     (anon_sym_SEMI, 310), (anon_sym_PERCENT, 312), (aux_sym_input_decls_token1, 314),
     (aux_sym_output_decls_token1, 316), (aux_sym_in_out_decls_token1, 318),
     (aux_sym_var_decls_token1, 320), (aux_sym_temp_var_decls_token1, 322),
     (aux_sym_external_var_decls_token1, 324), (aux_sym_global_var_decls_token1, 326),
     (aux_sym_fb_decl_token4, 540), (aux_sym_method_decl_token1, 330),
     (aux_sym_prog_access_decls_token1, 332), (aux_sym_initial_step_token1, 334),
     (aux_sym_config_init_token1, 336), (aux_sym_using_directive_token1, 338),
     (aux_sym__stmt_token1, 340), (aux_sym__stmt_token2, 340), (aux_sym__stmt_token3, 340),
     (aux_sym_if_stmt_token1, 342), (aux_sym_case_stmt_token1, 344), (aux_sym_for_stmt_token1, 346),
     (aux_sym_while_stmt_token1, 348), (aux_sym_repeat_stmt_token1, 350),
     (aux_sym_raise_stmt_token1, 352), (aux_sym_try_stmt_token1, 354),
     (aux_sym_try_stmt_token2, 356), (aux_sym_catch_clause_token1, 356),
     (aux_sym_finally_clause_token1, 356), (sym_ld_rung, 358), (sym_fbd_network, 360),
     (sym_c_style_comment, 3), (sym_pascal_style_comment, 3), (sym_pragma, 3)]"

lemma ts_parse_row_152_scan: "row_scan tokens_63_2 0 ts_parse_row_152 = Some (Suc (Suc (Suc (Suc 0))))"
  unfolding ts_parse_row_152_def by simp

text \<open>Lines 71876 to 71994.\<close>

definition ts_parse_row_153 :: parse_row where
  "ts_parse_row_153 =
    [(sym_ERR_implements_multiple_times, 170), (sym_ERR_assign_func_call, 7530),
     (sym_ERR_unexpected_this_in_path, 2372), (sym_ERR_unexpected_super_in_path, 2372),
     (sym_ERR_fb_variables_after_method, 1983), (sym_ERR_var_access_not_allowed, 3160),
     (sym_ERR_var_config_not_allowed, 3160), (sym_ERR_var_global_not_allowed, 3160),
     (sym_ERR_method_decl_in_body, 3150), (sym_extern_pragma, 7490), (sym_wasm_pragma, 3150),
     (sym_warn_pragma, 7490), (sym_allow_pragma, 3140), (sym_test_pragma, 7490),
     (sym_once_pragma, 7490), (sym_must_call_pragma, 7490), (sym_export_pragma, 7490),
     (sym_pou_pragma, 7194), (sym_direct_variable, 7675), (sym_deref_expression, 2373),
     (sym_variable, 7599), (sym_var_access, 2373), (sym_in_out_decls, 3160), (sym_var_decls, 3160),
     (sym_retain_var_decls, 3160), (sym_temp_var_decls, 3160), (sym_external_var_decls, 3160),
     (sym_global_var_decls, 2947), (sym_loc_partly_var_decl, 3160), (sym__fb_variables, 497),
     (sym_fb_input_decls, 3160), (sym_fb_output_decls, 3160), (sym_no_retain_var_decls, 3160),
     (sym_fb_body, 8428), (sym_method_decl, 500), (sym_prog_access_decls, 3043), (sym_SFC, 7970),
     (sym_SFC_network, 7612), (sym_initial_step, 7439), (sym_config_init, 3047),
     (sym_using_directive, 218), (sym_variable_access, 7530), (sym_func_call, 2961),
     (sym_stmt_list, 7970), (sym__stmt, 2024), (sym_assign, 3150), (sym_if_stmt, 3150),
     (sym_case_stmt, 3150), (sym_for_stmt, 3150), (sym_while_stmt, 3150), (sym_repeat_stmt, 3150),
     (sym_raise_stmt, 3150), (sym_try_stmt, 3150), (sym_ERR_clause_outside_try, 3150),
     (sym_begin_path_expression, 2943), (sym_invocation, 2934), (sym_any_invocation, 2935),
     (sym_this_invocation, 2641), (sym_super_invocation, 2641), (sym_super_body_invocation, 2935),
     (sym_path_expression, 2627), (sym_field_expression, 2373), (sym_index_expression, 2373),
     (sym_ladder_diagram, 7970), (sym_fb_diagram, 7970),
     (aux_sym_ERR_fb_variables_after_method_repeat1, 497), (aux_sym_func_decl_repeat1, 7194),
     (aux_sym_func_decl_repeat2, 218), (aux_sym_fb_decl_repeat2, 170),
     (aux_sym_fb_decl_repeat3, 500), (aux_sym_SFC_repeat1, 7612), (aux_sym_stmt_list_repeat1, 2024),
     (aux_sym_ladder_diagram_repeat1, 8009), (aux_sym_fb_diagram_repeat1, 8013),
     (sym_identifier, 298), (aux_sym_ERR_implements_before_extends_token1, 486),
     (aux_sym_ERR_unexpected_this_in_path_token1, 304),
     (aux_sym_ERR_unexpected_super_in_path_token1, 306), (sym_line_comment, 3),
     (anon_sym_LBRACE, 308), (aux_sym_test_pragma_token1, 9), (aux_sym_once_pragma_token1, 11),
     (aux_sym_must_call_pragma_token1, 13), (aux_sym_export_pragma_token1, 15),
     (anon_sym_SEMI, 310), (anon_sym_PERCENT, 312), (aux_sym_input_decls_token1, 314),
     (aux_sym_output_decls_token1, 316), (aux_sym_in_out_decls_token1, 318),
     (aux_sym_var_decls_token1, 320), (aux_sym_temp_var_decls_token1, 322),
     (aux_sym_external_var_decls_token1, 324), (aux_sym_global_var_decls_token1, 326),
     (aux_sym_fb_decl_token4, 542), (aux_sym_method_decl_token1, 330),
     (aux_sym_prog_access_decls_token1, 332), (aux_sym_initial_step_token1, 334),
     (aux_sym_config_init_token1, 336), (aux_sym_using_directive_token1, 338),
     (aux_sym__stmt_token1, 340), (aux_sym__stmt_token2, 340), (aux_sym__stmt_token3, 340),
     (aux_sym_if_stmt_token1, 342), (aux_sym_case_stmt_token1, 344), (aux_sym_for_stmt_token1, 346),
     (aux_sym_while_stmt_token1, 348), (aux_sym_repeat_stmt_token1, 350),
     (aux_sym_raise_stmt_token1, 352), (aux_sym_try_stmt_token1, 354),
     (aux_sym_try_stmt_token2, 356), (aux_sym_catch_clause_token1, 356),
     (aux_sym_finally_clause_token1, 356), (sym_ld_rung, 358), (sym_fbd_network, 360),
     (sym_c_style_comment, 3), (sym_pascal_style_comment, 3), (sym_pragma, 3)]"

lemma ts_parse_row_153_scan: "row_scan tokens_63_2 0 ts_parse_row_153 = Some (Suc (Suc (Suc (Suc 0))))"
  unfolding ts_parse_row_153_def by simp

text \<open>Lines 71995 to 72113.\<close>

definition ts_parse_row_154 :: parse_row where
  "ts_parse_row_154 =
    [(sym_ERR_implements_multiple_times, 2978), (sym_ERR_assign_func_call, 7530),
     (sym_ERR_unexpected_this_in_path, 2372), (sym_ERR_unexpected_super_in_path, 2372),
     (sym_ERR_fb_variables_after_method, 1995), (sym_ERR_var_access_not_allowed, 3160),
     (sym_ERR_var_config_not_allowed, 3160), (sym_ERR_var_global_not_allowed, 3160),
     (sym_ERR_method_decl_in_body, 3150), (sym_extern_pragma, 7490), (sym_wasm_pragma, 3150),
     (sym_warn_pragma, 7490), (sym_allow_pragma, 3140), (sym_test_pragma, 7490),
     (sym_once_pragma, 7490), (sym_must_call_pragma, 7490), (sym_export_pragma, 7490),
     (sym_pou_pragma, 7194), (sym_direct_variable, 7675), (sym_deref_expression, 2373),
     (sym_variable, 7599), (sym_var_access, 2373), (sym_in_out_decls, 3160), (sym_var_decls, 3160),
     (sym_retain_var_decls, 3160), (sym_temp_var_decls, 3160), (sym_external_var_decls, 3160),
     (sym_global_var_decls, 2947), (sym_loc_partly_var_decl, 3160), (sym__fb_variables, 506),
     (sym_fb_input_decls, 3160), (sym_fb_output_decls, 3160), (sym_no_retain_var_decls, 3160),
     (sym_fb_body, 8473), (sym_method_decl, 508), (sym_prog_access_decls, 3043), (sym_SFC, 7970),
     (sym_SFC_network, 7612), (sym_initial_step, 7439), (sym_config_init, 3047),
     (sym_using_directive, 221), (sym_variable_access, 7530), (sym_func_call, 2961),
     (sym_stmt_list, 7970), (sym__stmt, 2024), (sym_assign, 3150), (sym_if_stmt, 3150),
     (sym_case_stmt, 3150), (sym_for_stmt, 3150), (sym_while_stmt, 3150), (sym_repeat_stmt, 3150),
     (sym_raise_stmt, 3150), (sym_try_stmt, 3150), (sym_ERR_clause_outside_try, 3150),
     (sym_begin_path_expression, 2943), (sym_invocation, 2934), (sym_any_invocation, 2935),
     (sym_this_invocation, 2641), (sym_super_invocation, 2641), (sym_super_body_invocation, 2935),
     (sym_path_expression, 2627), (sym_field_expression, 2373), (sym_index_expression, 2373),
     (sym_ladder_diagram, 7970), (sym_fb_diagram, 7970),
     (aux_sym_ERR_fb_variables_after_method_repeat1, 506), (aux_sym_func_decl_repeat1, 7194),
     (aux_sym_func_decl_repeat2, 221), (aux_sym_fb_decl_repeat2, 2978),
     (aux_sym_fb_decl_repeat3, 508), (aux_sym_SFC_repeat1, 7612), (aux_sym_stmt_list_repeat1, 2024),
     (aux_sym_ladder_diagram_repeat1, 8009), (aux_sym_fb_diagram_repeat1, 8013),
     (sym_identifier, 298), (aux_sym_ERR_implements_before_extends_token1, 486),
     (aux_sym_ERR_unexpected_this_in_path_token1, 304),
     (aux_sym_ERR_unexpected_super_in_path_token1, 306), (sym_line_comment, 3),
     (anon_sym_LBRACE, 308), (aux_sym_test_pragma_token1, 9), (aux_sym_once_pragma_token1, 11),
     (aux_sym_must_call_pragma_token1, 13), (aux_sym_export_pragma_token1, 15),
     (anon_sym_SEMI, 310), (anon_sym_PERCENT, 312), (aux_sym_input_decls_token1, 314),
     (aux_sym_output_decls_token1, 316), (aux_sym_in_out_decls_token1, 318),
     (aux_sym_var_decls_token1, 320), (aux_sym_temp_var_decls_token1, 322),
     (aux_sym_external_var_decls_token1, 324), (aux_sym_global_var_decls_token1, 326),
     (aux_sym_fb_decl_token4, 544), (aux_sym_method_decl_token1, 330),
     (aux_sym_prog_access_decls_token1, 332), (aux_sym_initial_step_token1, 334),
     (aux_sym_config_init_token1, 336), (aux_sym_using_directive_token1, 338),
     (aux_sym__stmt_token1, 340), (aux_sym__stmt_token2, 340), (aux_sym__stmt_token3, 340),
     (aux_sym_if_stmt_token1, 342), (aux_sym_case_stmt_token1, 344), (aux_sym_for_stmt_token1, 346),
     (aux_sym_while_stmt_token1, 348), (aux_sym_repeat_stmt_token1, 350),
     (aux_sym_raise_stmt_token1, 352), (aux_sym_try_stmt_token1, 354),
     (aux_sym_try_stmt_token2, 356), (aux_sym_catch_clause_token1, 356),
     (aux_sym_finally_clause_token1, 356), (sym_ld_rung, 358), (sym_fbd_network, 360),
     (sym_c_style_comment, 3), (sym_pascal_style_comment, 3), (sym_pragma, 3)]"

lemma ts_parse_row_154_scan: "row_scan tokens_63_2 0 ts_parse_row_154 = Some (Suc (Suc (Suc (Suc 0))))"
  unfolding ts_parse_row_154_def by simp

text \<open>Lines 72114 to 72232.\<close>

definition ts_parse_row_155 :: parse_row where
  "ts_parse_row_155 =
    [(sym_ERR_implements_multiple_times, 2978), (sym_ERR_assign_func_call, 7530),
     (sym_ERR_unexpected_this_in_path, 2372), (sym_ERR_unexpected_super_in_path, 2372),
     (sym_ERR_fb_variables_after_method, 1229), (sym_ERR_var_access_not_allowed, 3160),
     (sym_ERR_var_config_not_allowed, 3160), (sym_ERR_var_global_not_allowed, 3160),
     (sym_ERR_method_decl_in_body, 3150), (sym_extern_pragma, 7490), (sym_wasm_pragma, 3150),
     (sym_warn_pragma, 7490), (sym_allow_pragma, 3140), (sym_test_pragma, 7490),
     (sym_once_pragma, 7490), (sym_must_call_pragma, 7490), (sym_export_pragma, 7490),
     (sym_pou_pragma, 7194), (sym_direct_variable, 7675), (sym_deref_expression, 2373),
     (sym_variable, 7599), (sym_var_access, 2373), (sym_in_out_decls, 3160), (sym_var_decls, 3160),
     (sym_retain_var_decls, 3160), (sym_temp_var_decls, 3160), (sym_external_var_decls, 3160),
     (sym_global_var_decls, 2947), (sym_loc_partly_var_decl, 3160), (sym__fb_variables, 512),
     (sym_fb_input_decls, 3160), (sym_fb_output_decls, 3160), (sym_no_retain_var_decls, 3160),
     (sym_fb_body, 8523), (sym_method_decl, 514), (sym_prog_access_decls, 3043), (sym_SFC, 7970),
     (sym_SFC_network, 7612), (sym_initial_step, 7439), (sym_config_init, 3047),
     (sym_using_directive, 222), (sym_variable_access, 7530), (sym_func_call, 2961),
     (sym_stmt_list, 7970), (sym__stmt, 2024), (sym_assign, 3150), (sym_if_stmt, 3150),
     (sym_case_stmt, 3150), (sym_for_stmt, 3150), (sym_while_stmt, 3150), (sym_repeat_stmt, 3150),
     (sym_raise_stmt, 3150), (sym_try_stmt, 3150), (sym_ERR_clause_outside_try, 3150),
     (sym_begin_path_expression, 2943), (sym_invocation, 2934), (sym_any_invocation, 2935),
     (sym_this_invocation, 2641), (sym_super_invocation, 2641), (sym_super_body_invocation, 2935),
     (sym_path_expression, 2627), (sym_field_expression, 2373), (sym_index_expression, 2373),
     (sym_ladder_diagram, 7970), (sym_fb_diagram, 7970),
     (aux_sym_ERR_fb_variables_after_method_repeat1, 512), (aux_sym_func_decl_repeat1, 7194),
     (aux_sym_func_decl_repeat2, 222), (aux_sym_fb_decl_repeat2, 2978),
     (aux_sym_fb_decl_repeat3, 514), (aux_sym_SFC_repeat1, 7612), (aux_sym_stmt_list_repeat1, 2024),
     (aux_sym_ladder_diagram_repeat1, 8009), (aux_sym_fb_diagram_repeat1, 8013),
     (sym_identifier, 298), (aux_sym_ERR_implements_before_extends_token1, 486),
     (aux_sym_ERR_unexpected_this_in_path_token1, 304),
     (aux_sym_ERR_unexpected_super_in_path_token1, 306), (sym_line_comment, 3),
     (anon_sym_LBRACE, 308), (aux_sym_test_pragma_token1, 9), (aux_sym_once_pragma_token1, 11),
     (aux_sym_must_call_pragma_token1, 13), (aux_sym_export_pragma_token1, 15),
     (anon_sym_SEMI, 310), (anon_sym_PERCENT, 312), (aux_sym_input_decls_token1, 314),
     (aux_sym_output_decls_token1, 316), (aux_sym_in_out_decls_token1, 318),
     (aux_sym_var_decls_token1, 320), (aux_sym_temp_var_decls_token1, 322),
     (aux_sym_external_var_decls_token1, 324), (aux_sym_global_var_decls_token1, 326),
     (aux_sym_fb_decl_token4, 546), (aux_sym_method_decl_token1, 330),
     (aux_sym_prog_access_decls_token1, 332), (aux_sym_initial_step_token1, 334),
     (aux_sym_config_init_token1, 336), (aux_sym_using_directive_token1, 338),
     (aux_sym__stmt_token1, 340), (aux_sym__stmt_token2, 340), (aux_sym__stmt_token3, 340),
     (aux_sym_if_stmt_token1, 342), (aux_sym_case_stmt_token1, 344), (aux_sym_for_stmt_token1, 346),
     (aux_sym_while_stmt_token1, 348), (aux_sym_repeat_stmt_token1, 350),
     (aux_sym_raise_stmt_token1, 352), (aux_sym_try_stmt_token1, 354),
     (aux_sym_try_stmt_token2, 356), (aux_sym_catch_clause_token1, 356),
     (aux_sym_finally_clause_token1, 356), (sym_ld_rung, 358), (sym_fbd_network, 360),
     (sym_c_style_comment, 3), (sym_pascal_style_comment, 3), (sym_pragma, 3)]"

lemma ts_parse_row_155_scan: "row_scan tokens_63_2 0 ts_parse_row_155 = Some (Suc (Suc (Suc (Suc 0))))"
  unfolding ts_parse_row_155_def by simp

text \<open>Lines 72233 to 72351.\<close>

definition ts_parse_row_156 :: parse_row where
  "ts_parse_row_156 =
    [(sym_ERR_implements_multiple_times, 2978), (sym_ERR_assign_func_call, 7530),
     (sym_ERR_unexpected_this_in_path, 2372), (sym_ERR_unexpected_super_in_path, 2372),
     (sym_ERR_fb_variables_after_method, 1251), (sym_ERR_var_access_not_allowed, 3160),
     (sym_ERR_var_config_not_allowed, 3160), (sym_ERR_var_global_not_allowed, 3160),
     (sym_ERR_method_decl_in_body, 3150), (sym_extern_pragma, 7490), (sym_wasm_pragma, 3150),
     (sym_warn_pragma, 7490), (sym_allow_pragma, 3140), (sym_test_pragma, 7490),
     (sym_once_pragma, 7490), (sym_must_call_pragma, 7490), (sym_export_pragma, 7490),
     (sym_pou_pragma, 7194), (sym_direct_variable, 7675), (sym_deref_expression, 2373),
     (sym_variable, 7599), (sym_var_access, 2373), (sym_in_out_decls, 3160), (sym_var_decls, 3160),
     (sym_retain_var_decls, 3160), (sym_temp_var_decls, 3160), (sym_external_var_decls, 3160),
     (sym_global_var_decls, 2947), (sym_loc_partly_var_decl, 3160), (sym__fb_variables, 523),
     (sym_fb_input_decls, 3160), (sym_fb_output_decls, 3160), (sym_no_retain_var_decls, 3160),
     (sym_fb_body, 8764), (sym_method_decl, 525), (sym_prog_access_decls, 3043), (sym_SFC, 7970),
     (sym_SFC_network, 7612), (sym_initial_step, 7439), (sym_config_init, 3047),
     (sym_using_directive, 223), (sym_variable_access, 7530), (sym_func_call, 2961),
     (sym_stmt_list, 7970), (sym__stmt, 2024), (sym_assign, 3150), (sym_if_stmt, 3150),
     (sym_case_stmt, 3150), (sym_for_stmt, 3150), (sym_while_stmt, 3150), (sym_repeat_stmt, 3150),
     (sym_raise_stmt, 3150), (sym_try_stmt, 3150), (sym_ERR_clause_outside_try, 3150),
     (sym_begin_path_expression, 2943), (sym_invocation, 2934), (sym_any_invocation, 2935),
     (sym_this_invocation, 2641), (sym_super_invocation, 2641), (sym_super_body_invocation, 2935),
     (sym_path_expression, 2627), (sym_field_expression, 2373), (sym_index_expression, 2373),
     (sym_ladder_diagram, 7970), (sym_fb_diagram, 7970),
     (aux_sym_ERR_fb_variables_after_method_repeat1, 523), (aux_sym_func_decl_repeat1, 7194),
     (aux_sym_func_decl_repeat2, 223), (aux_sym_fb_decl_repeat2, 2978),
     (aux_sym_fb_decl_repeat3, 525), (aux_sym_SFC_repeat1, 7612), (aux_sym_stmt_list_repeat1, 2024),
     (aux_sym_ladder_diagram_repeat1, 8009), (aux_sym_fb_diagram_repeat1, 8013),
     (sym_identifier, 298), (aux_sym_ERR_implements_before_extends_token1, 486),
     (aux_sym_ERR_unexpected_this_in_path_token1, 304),
     (aux_sym_ERR_unexpected_super_in_path_token1, 306), (sym_line_comment, 3),
     (anon_sym_LBRACE, 308), (aux_sym_test_pragma_token1, 9), (aux_sym_once_pragma_token1, 11),
     (aux_sym_must_call_pragma_token1, 13), (aux_sym_export_pragma_token1, 15),
     (anon_sym_SEMI, 310), (anon_sym_PERCENT, 312), (aux_sym_input_decls_token1, 314),
     (aux_sym_output_decls_token1, 316), (aux_sym_in_out_decls_token1, 318),
     (aux_sym_var_decls_token1, 320), (aux_sym_temp_var_decls_token1, 322),
     (aux_sym_external_var_decls_token1, 324), (aux_sym_global_var_decls_token1, 326),
     (aux_sym_fb_decl_token4, 548), (aux_sym_method_decl_token1, 330),
     (aux_sym_prog_access_decls_token1, 332), (aux_sym_initial_step_token1, 334),
     (aux_sym_config_init_token1, 336), (aux_sym_using_directive_token1, 338),
     (aux_sym__stmt_token1, 340), (aux_sym__stmt_token2, 340), (aux_sym__stmt_token3, 340),
     (aux_sym_if_stmt_token1, 342), (aux_sym_case_stmt_token1, 344), (aux_sym_for_stmt_token1, 346),
     (aux_sym_while_stmt_token1, 348), (aux_sym_repeat_stmt_token1, 350),
     (aux_sym_raise_stmt_token1, 352), (aux_sym_try_stmt_token1, 354),
     (aux_sym_try_stmt_token2, 356), (aux_sym_catch_clause_token1, 356),
     (aux_sym_finally_clause_token1, 356), (sym_ld_rung, 358), (sym_fbd_network, 360),
     (sym_c_style_comment, 3), (sym_pascal_style_comment, 3), (sym_pragma, 3)]"

lemma ts_parse_row_156_scan: "row_scan tokens_63_2 0 ts_parse_row_156 = Some (Suc (Suc (Suc (Suc 0))))"
  unfolding ts_parse_row_156_def by simp

text \<open>Lines 72352 to 72470.\<close>

definition ts_parse_row_157 :: parse_row where
  "ts_parse_row_157 =
    [(sym_ERR_implements_multiple_times, 2978), (sym_ERR_assign_func_call, 7530),
     (sym_ERR_unexpected_this_in_path, 2372), (sym_ERR_unexpected_super_in_path, 2372),
     (sym_ERR_fb_variables_after_method, 1266), (sym_ERR_var_access_not_allowed, 3160),
     (sym_ERR_var_config_not_allowed, 3160), (sym_ERR_var_global_not_allowed, 3160),
     (sym_ERR_method_decl_in_body, 3150), (sym_extern_pragma, 7490), (sym_wasm_pragma, 3150),
     (sym_warn_pragma, 7490), (sym_allow_pragma, 3140), (sym_test_pragma, 7490),
     (sym_once_pragma, 7490), (sym_must_call_pragma, 7490), (sym_export_pragma, 7490),
     (sym_pou_pragma, 7194), (sym_direct_variable, 7675), (sym_deref_expression, 2373),
     (sym_variable, 7599), (sym_var_access, 2373), (sym_in_out_decls, 3160), (sym_var_decls, 3160),
     (sym_retain_var_decls, 3160), (sym_temp_var_decls, 3160), (sym_external_var_decls, 3160),
     (sym_global_var_decls, 2947), (sym_loc_partly_var_decl, 3160), (sym__fb_variables, 531),
     (sym_fb_input_decls, 3160), (sym_fb_output_decls, 3160), (sym_no_retain_var_decls, 3160),
     (sym_fb_body, 8932), (sym_method_decl, 533), (sym_prog_access_decls, 3043), (sym_SFC, 7970),
     (sym_SFC_network, 7612), (sym_initial_step, 7439), (sym_config_init, 3047),
     (sym_using_directive, 224), (sym_variable_access, 7530), (sym_func_call, 2961),
     (sym_stmt_list, 7970), (sym__stmt, 2024), (sym_assign, 3150), (sym_if_stmt, 3150),
     (sym_case_stmt, 3150), (sym_for_stmt, 3150), (sym_while_stmt, 3150), (sym_repeat_stmt, 3150),
     (sym_raise_stmt, 3150), (sym_try_stmt, 3150), (sym_ERR_clause_outside_try, 3150),
     (sym_begin_path_expression, 2943), (sym_invocation, 2934), (sym_any_invocation, 2935),
     (sym_this_invocation, 2641), (sym_super_invocation, 2641), (sym_super_body_invocation, 2935),
     (sym_path_expression, 2627), (sym_field_expression, 2373), (sym_index_expression, 2373),
     (sym_ladder_diagram, 7970), (sym_fb_diagram, 7970),
     (aux_sym_ERR_fb_variables_after_method_repeat1, 531), (aux_sym_func_decl_repeat1, 7194),
     (aux_sym_func_decl_repeat2, 224), (aux_sym_fb_decl_repeat2, 2978),
     (aux_sym_fb_decl_repeat3, 533), (aux_sym_SFC_repeat1, 7612), (aux_sym_stmt_list_repeat1, 2024),
     (aux_sym_ladder_diagram_repeat1, 8009), (aux_sym_fb_diagram_repeat1, 8013),
     (sym_identifier, 298), (aux_sym_ERR_implements_before_extends_token1, 486),
     (aux_sym_ERR_unexpected_this_in_path_token1, 304),
     (aux_sym_ERR_unexpected_super_in_path_token1, 306), (sym_line_comment, 3),
     (anon_sym_LBRACE, 308), (aux_sym_test_pragma_token1, 9), (aux_sym_once_pragma_token1, 11),
     (aux_sym_must_call_pragma_token1, 13), (aux_sym_export_pragma_token1, 15),
     (anon_sym_SEMI, 310), (anon_sym_PERCENT, 312), (aux_sym_input_decls_token1, 314),
     (aux_sym_output_decls_token1, 316), (aux_sym_in_out_decls_token1, 318),
     (aux_sym_var_decls_token1, 320), (aux_sym_temp_var_decls_token1, 322),
     (aux_sym_external_var_decls_token1, 324), (aux_sym_global_var_decls_token1, 326),
     (aux_sym_fb_decl_token4, 550), (aux_sym_method_decl_token1, 330),
     (aux_sym_prog_access_decls_token1, 332), (aux_sym_initial_step_token1, 334),
     (aux_sym_config_init_token1, 336), (aux_sym_using_directive_token1, 338),
     (aux_sym__stmt_token1, 340), (aux_sym__stmt_token2, 340), (aux_sym__stmt_token3, 340),
     (aux_sym_if_stmt_token1, 342), (aux_sym_case_stmt_token1, 344), (aux_sym_for_stmt_token1, 346),
     (aux_sym_while_stmt_token1, 348), (aux_sym_repeat_stmt_token1, 350),
     (aux_sym_raise_stmt_token1, 352), (aux_sym_try_stmt_token1, 354),
     (aux_sym_try_stmt_token2, 356), (aux_sym_catch_clause_token1, 356),
     (aux_sym_finally_clause_token1, 356), (sym_ld_rung, 358), (sym_fbd_network, 360),
     (sym_c_style_comment, 3), (sym_pascal_style_comment, 3), (sym_pragma, 3)]"

lemma ts_parse_row_157_scan: "row_scan tokens_63_2 0 ts_parse_row_157 = Some (Suc (Suc (Suc (Suc 0))))"
  unfolding ts_parse_row_157_def by simp

text \<open>Lines 72471 to 72589.\<close>

definition ts_parse_row_158 :: parse_row where
  "ts_parse_row_158 =
    [(sym_ERR_implements_multiple_times, 172), (sym_ERR_assign_func_call, 7530),
     (sym_ERR_unexpected_this_in_path, 2372), (sym_ERR_unexpected_super_in_path, 2372),
     (sym_ERR_fb_variables_after_method, 1270), (sym_ERR_var_access_not_allowed, 3160),
     (sym_ERR_var_config_not_allowed, 3160), (sym_ERR_var_global_not_allowed, 3160),
     (sym_ERR_method_decl_in_body, 3150), (sym_extern_pragma, 7490), (sym_wasm_pragma, 3150),
     (sym_warn_pragma, 7490), (sym_allow_pragma, 3140), (sym_test_pragma, 7490),
     (sym_once_pragma, 7490), (sym_must_call_pragma, 7490), (sym_export_pragma, 7490),
     (sym_pou_pragma, 7194), (sym_direct_variable, 7675), (sym_deref_expression, 2373),
     (sym_variable, 7599), (sym_var_access, 2373), (sym_in_out_decls, 3160), (sym_var_decls, 3160),
     (sym_retain_var_decls, 3160), (sym_temp_var_decls, 3160), (sym_external_var_decls, 3160),
     (sym_global_var_decls, 2947), (sym_loc_partly_var_decl, 3160), (sym__fb_variables, 534),
     (sym_fb_input_decls, 3160), (sym_fb_output_decls, 3160), (sym_no_retain_var_decls, 3160),
     (sym_fb_body, 8995), (sym_method_decl, 537), (sym_prog_access_decls, 3043), (sym_SFC, 7970),
     (sym_SFC_network, 7612), (sym_initial_step, 7439), (sym_config_init, 3047),
     (sym_using_directive, 225), (sym_variable_access, 7530), (sym_func_call, 2961),
     (sym_stmt_list, 7970), (sym__stmt, 2024), (sym_assign, 3150), (sym_if_stmt, 3150),
     (sym_case_stmt, 3150), (sym_for_stmt, 3150), (sym_while_stmt, 3150), (sym_repeat_stmt, 3150),
     (sym_raise_stmt, 3150), (sym_try_stmt, 3150), (sym_ERR_clause_outside_try, 3150),
     (sym_begin_path_expression, 2943), (sym_invocation, 2934), (sym_any_invocation, 2935),
     (sym_this_invocation, 2641), (sym_super_invocation, 2641), (sym_super_body_invocation, 2935),
     (sym_path_expression, 2627), (sym_field_expression, 2373), (sym_index_expression, 2373),
     (sym_ladder_diagram, 7970), (sym_fb_diagram, 7970),
     (aux_sym_ERR_fb_variables_after_method_repeat1, 534), (aux_sym_func_decl_repeat1, 7194),
     (aux_sym_func_decl_repeat2, 225), (aux_sym_fb_decl_repeat2, 172),
     (aux_sym_fb_decl_repeat3, 537), (aux_sym_SFC_repeat1, 7612), (aux_sym_stmt_list_repeat1, 2024),
     (aux_sym_ladder_diagram_repeat1, 8009), (aux_sym_fb_diagram_repeat1, 8013),
     (sym_identifier, 298), (aux_sym_ERR_implements_before_extends_token1, 486),
     (aux_sym_ERR_unexpected_this_in_path_token1, 304),
     (aux_sym_ERR_unexpected_super_in_path_token1, 306), (sym_line_comment, 3),
     (anon_sym_LBRACE, 308), (aux_sym_test_pragma_token1, 9), (aux_sym_once_pragma_token1, 11),
     (aux_sym_must_call_pragma_token1, 13), (aux_sym_export_pragma_token1, 15),
     (anon_sym_SEMI, 310), (anon_sym_PERCENT, 312), (aux_sym_input_decls_token1, 314),
     (aux_sym_output_decls_token1, 316), (aux_sym_in_out_decls_token1, 318),
     (aux_sym_var_decls_token1, 320), (aux_sym_temp_var_decls_token1, 322),
     (aux_sym_external_var_decls_token1, 324), (aux_sym_global_var_decls_token1, 326),
     (aux_sym_fb_decl_token4, 552), (aux_sym_method_decl_token1, 330),
     (aux_sym_prog_access_decls_token1, 332), (aux_sym_initial_step_token1, 334),
     (aux_sym_config_init_token1, 336), (aux_sym_using_directive_token1, 338),
     (aux_sym__stmt_token1, 340), (aux_sym__stmt_token2, 340), (aux_sym__stmt_token3, 340),
     (aux_sym_if_stmt_token1, 342), (aux_sym_case_stmt_token1, 344), (aux_sym_for_stmt_token1, 346),
     (aux_sym_while_stmt_token1, 348), (aux_sym_repeat_stmt_token1, 350),
     (aux_sym_raise_stmt_token1, 352), (aux_sym_try_stmt_token1, 354),
     (aux_sym_try_stmt_token2, 356), (aux_sym_catch_clause_token1, 356),
     (aux_sym_finally_clause_token1, 356), (sym_ld_rung, 358), (sym_fbd_network, 360),
     (sym_c_style_comment, 3), (sym_pascal_style_comment, 3), (sym_pragma, 3)]"

lemma ts_parse_row_158_scan: "row_scan tokens_63_2 0 ts_parse_row_158 = Some (Suc (Suc (Suc (Suc 0))))"
  unfolding ts_parse_row_158_def by simp

text \<open>Lines 72590 to 72708.\<close>

definition ts_parse_row_159 :: parse_row where
  "ts_parse_row_159 =
    [(sym_ERR_implements_multiple_times, 173), (sym_ERR_assign_func_call, 7530),
     (sym_ERR_unexpected_this_in_path, 2372), (sym_ERR_unexpected_super_in_path, 2372),
     (sym_ERR_fb_variables_after_method, 1298), (sym_ERR_var_access_not_allowed, 3160),
     (sym_ERR_var_config_not_allowed, 3160), (sym_ERR_var_global_not_allowed, 3160),
     (sym_ERR_method_decl_in_body, 3150), (sym_extern_pragma, 7490), (sym_wasm_pragma, 3150),
     (sym_warn_pragma, 7490), (sym_allow_pragma, 3140), (sym_test_pragma, 7490),
     (sym_once_pragma, 7490), (sym_must_call_pragma, 7490), (sym_export_pragma, 7490),
     (sym_pou_pragma, 7194), (sym_direct_variable, 7675), (sym_deref_expression, 2373),
     (sym_variable, 7599), (sym_var_access, 2373), (sym_in_out_decls, 3160), (sym_var_decls, 3160),
     (sym_retain_var_decls, 3160), (sym_temp_var_decls, 3160), (sym_external_var_decls, 3160),
     (sym_global_var_decls, 2947), (sym_loc_partly_var_decl, 3160), (sym__fb_variables, 550),
     (sym_fb_input_decls, 3160), (sym_fb_output_decls, 3160), (sym_no_retain_var_decls, 3160),
     (sym_fb_body, 9722), (sym_method_decl, 553), (sym_prog_access_decls, 3043), (sym_SFC, 7970),
     (sym_SFC_network, 7612), (sym_initial_step, 7439), (sym_config_init, 3047),
     (sym_using_directive, 227), (sym_variable_access, 7530), (sym_func_call, 2961),
     (sym_stmt_list, 7970), (sym__stmt, 2024), (sym_assign, 3150), (sym_if_stmt, 3150),
     (sym_case_stmt, 3150), (sym_for_stmt, 3150), (sym_while_stmt, 3150), (sym_repeat_stmt, 3150),
     (sym_raise_stmt, 3150), (sym_try_stmt, 3150), (sym_ERR_clause_outside_try, 3150),
     (sym_begin_path_expression, 2943), (sym_invocation, 2934), (sym_any_invocation, 2935),
     (sym_this_invocation, 2641), (sym_super_invocation, 2641), (sym_super_body_invocation, 2935),
     (sym_path_expression, 2627), (sym_field_expression, 2373), (sym_index_expression, 2373),
     (sym_ladder_diagram, 7970), (sym_fb_diagram, 7970),
     (aux_sym_ERR_fb_variables_after_method_repeat1, 550), (aux_sym_func_decl_repeat1, 7194),
     (aux_sym_func_decl_repeat2, 227), (aux_sym_fb_decl_repeat2, 173),
     (aux_sym_fb_decl_repeat3, 553), (aux_sym_SFC_repeat1, 7612), (aux_sym_stmt_list_repeat1, 2024),
     (aux_sym_ladder_diagram_repeat1, 8009), (aux_sym_fb_diagram_repeat1, 8013),
     (sym_identifier, 298), (aux_sym_ERR_implements_before_extends_token1, 486),
     (aux_sym_ERR_unexpected_this_in_path_token1, 304),
     (aux_sym_ERR_unexpected_super_in_path_token1, 306), (sym_line_comment, 3),
     (anon_sym_LBRACE, 308), (aux_sym_test_pragma_token1, 9), (aux_sym_once_pragma_token1, 11),
     (aux_sym_must_call_pragma_token1, 13), (aux_sym_export_pragma_token1, 15),
     (anon_sym_SEMI, 310), (anon_sym_PERCENT, 312), (aux_sym_input_decls_token1, 314),
     (aux_sym_output_decls_token1, 316), (aux_sym_in_out_decls_token1, 318),
     (aux_sym_var_decls_token1, 320), (aux_sym_temp_var_decls_token1, 322),
     (aux_sym_external_var_decls_token1, 324), (aux_sym_global_var_decls_token1, 326),
     (aux_sym_fb_decl_token4, 554), (aux_sym_method_decl_token1, 330),
     (aux_sym_prog_access_decls_token1, 332), (aux_sym_initial_step_token1, 334),
     (aux_sym_config_init_token1, 336), (aux_sym_using_directive_token1, 338),
     (aux_sym__stmt_token1, 340), (aux_sym__stmt_token2, 340), (aux_sym__stmt_token3, 340),
     (aux_sym_if_stmt_token1, 342), (aux_sym_case_stmt_token1, 344), (aux_sym_for_stmt_token1, 346),
     (aux_sym_while_stmt_token1, 348), (aux_sym_repeat_stmt_token1, 350),
     (aux_sym_raise_stmt_token1, 352), (aux_sym_try_stmt_token1, 354),
     (aux_sym_try_stmt_token2, 356), (aux_sym_catch_clause_token1, 356),
     (aux_sym_finally_clause_token1, 356), (sym_ld_rung, 358), (sym_fbd_network, 360),
     (sym_c_style_comment, 3), (sym_pascal_style_comment, 3), (sym_pragma, 3)]"

lemma ts_parse_row_159_scan: "row_scan tokens_63_2 0 ts_parse_row_159 = Some (Suc (Suc (Suc (Suc 0))))"
  unfolding ts_parse_row_159_def by simp

text \<open>Lines 72709 to 72827.\<close>

definition ts_parse_row_160 :: parse_row where
  "ts_parse_row_160 =
    [(sym_ERR_implements_multiple_times, 2978), (sym_ERR_assign_func_call, 7530),
     (sym_ERR_unexpected_this_in_path, 2372), (sym_ERR_unexpected_super_in_path, 2372),
     (sym_ERR_fb_variables_after_method, 1307), (sym_ERR_var_access_not_allowed, 3160),
     (sym_ERR_var_config_not_allowed, 3160), (sym_ERR_var_global_not_allowed, 3160),
     (sym_ERR_method_decl_in_body, 3150), (sym_extern_pragma, 7490), (sym_wasm_pragma, 3150),
     (sym_warn_pragma, 7490), (sym_allow_pragma, 3140), (sym_test_pragma, 7490),
     (sym_once_pragma, 7490), (sym_must_call_pragma, 7490), (sym_export_pragma, 7490),
     (sym_pou_pragma, 7194), (sym_direct_variable, 7675), (sym_deref_expression, 2373),
     (sym_variable, 7599), (sym_var_access, 2373), (sym_in_out_decls, 3160), (sym_var_decls, 3160),
     (sym_retain_var_decls, 3160), (sym_temp_var_decls, 3160), (sym_external_var_decls, 3160),
     (sym_global_var_decls, 2947), (sym_loc_partly_var_decl, 3160), (sym__fb_variables, 559),
     (sym_fb_input_decls, 3160), (sym_fb_output_decls, 3160), (sym_no_retain_var_decls, 3160),
     (sym_fb_body, 9760), (sym_method_decl, 561), (sym_prog_access_decls, 3043), (sym_SFC, 7970),
     (sym_SFC_network, 7612), (sym_initial_step, 7439), (sym_config_init, 3047),
     (sym_using_directive, 230), (sym_variable_access, 7530), (sym_func_call, 2961),
     (sym_stmt_list, 7970), (sym__stmt, 2024), (sym_assign, 3150), (sym_if_stmt, 3150),
     (sym_case_stmt, 3150), (sym_for_stmt, 3150), (sym_while_stmt, 3150), (sym_repeat_stmt, 3150),
     (sym_raise_stmt, 3150), (sym_try_stmt, 3150), (sym_ERR_clause_outside_try, 3150),
     (sym_begin_path_expression, 2943), (sym_invocation, 2934), (sym_any_invocation, 2935),
     (sym_this_invocation, 2641), (sym_super_invocation, 2641), (sym_super_body_invocation, 2935),
     (sym_path_expression, 2627), (sym_field_expression, 2373), (sym_index_expression, 2373),
     (sym_ladder_diagram, 7970), (sym_fb_diagram, 7970),
     (aux_sym_ERR_fb_variables_after_method_repeat1, 559), (aux_sym_func_decl_repeat1, 7194),
     (aux_sym_func_decl_repeat2, 230), (aux_sym_fb_decl_repeat2, 2978),
     (aux_sym_fb_decl_repeat3, 561), (aux_sym_SFC_repeat1, 7612), (aux_sym_stmt_list_repeat1, 2024),
     (aux_sym_ladder_diagram_repeat1, 8009), (aux_sym_fb_diagram_repeat1, 8013),
     (sym_identifier, 298), (aux_sym_ERR_implements_before_extends_token1, 486),
     (aux_sym_ERR_unexpected_this_in_path_token1, 304),
     (aux_sym_ERR_unexpected_super_in_path_token1, 306), (sym_line_comment, 3),
     (anon_sym_LBRACE, 308), (aux_sym_test_pragma_token1, 9), (aux_sym_once_pragma_token1, 11),
     (aux_sym_must_call_pragma_token1, 13), (aux_sym_export_pragma_token1, 15),
     (anon_sym_SEMI, 310), (anon_sym_PERCENT, 312), (aux_sym_input_decls_token1, 314),
     (aux_sym_output_decls_token1, 316), (aux_sym_in_out_decls_token1, 318),
     (aux_sym_var_decls_token1, 320), (aux_sym_temp_var_decls_token1, 322),
     (aux_sym_external_var_decls_token1, 324), (aux_sym_global_var_decls_token1, 326),
     (aux_sym_fb_decl_token4, 556), (aux_sym_method_decl_token1, 330),
     (aux_sym_prog_access_decls_token1, 332), (aux_sym_initial_step_token1, 334),
     (aux_sym_config_init_token1, 336), (aux_sym_using_directive_token1, 338),
     (aux_sym__stmt_token1, 340), (aux_sym__stmt_token2, 340), (aux_sym__stmt_token3, 340),
     (aux_sym_if_stmt_token1, 342), (aux_sym_case_stmt_token1, 344), (aux_sym_for_stmt_token1, 346),
     (aux_sym_while_stmt_token1, 348), (aux_sym_repeat_stmt_token1, 350),
     (aux_sym_raise_stmt_token1, 352), (aux_sym_try_stmt_token1, 354),
     (aux_sym_try_stmt_token2, 356), (aux_sym_catch_clause_token1, 356),
     (aux_sym_finally_clause_token1, 356), (sym_ld_rung, 358), (sym_fbd_network, 360),
     (sym_c_style_comment, 3), (sym_pascal_style_comment, 3), (sym_pragma, 3)]"

lemma ts_parse_row_160_scan: "row_scan tokens_63_2 0 ts_parse_row_160 = Some (Suc (Suc (Suc (Suc 0))))"
  unfolding ts_parse_row_160_def by simp

text \<open>Lines 72828 to 72946.\<close>

definition ts_parse_row_161 :: parse_row where
  "ts_parse_row_161 =
    [(sym_ERR_implements_multiple_times, 2978), (sym_ERR_assign_func_call, 7530),
     (sym_ERR_unexpected_this_in_path, 2372), (sym_ERR_unexpected_super_in_path, 2372),
     (sym_ERR_fb_variables_after_method, 1313), (sym_ERR_var_access_not_allowed, 3160),
     (sym_ERR_var_config_not_allowed, 3160), (sym_ERR_var_global_not_allowed, 3160),
     (sym_ERR_method_decl_in_body, 3150), (sym_extern_pragma, 7490), (sym_wasm_pragma, 3150),
     (sym_warn_pragma, 7490), (sym_allow_pragma, 3140), (sym_test_pragma, 7490),
     (sym_once_pragma, 7490), (sym_must_call_pragma, 7490), (sym_export_pragma, 7490),
     (sym_pou_pragma, 7194), (sym_direct_variable, 7675), (sym_deref_expression, 2373),
     (sym_variable, 7599), (sym_var_access, 2373), (sym_in_out_decls, 3160), (sym_var_decls, 3160),
     (sym_retain_var_decls, 3160), (sym_temp_var_decls, 3160), (sym_external_var_decls, 3160),
     (sym_global_var_decls, 2947), (sym_loc_partly_var_decl, 3160), (sym__fb_variables, 565),
     (sym_fb_input_decls, 3160), (sym_fb_output_decls, 3160), (sym_no_retain_var_decls, 3160),
     (sym_fb_body, 9792), (sym_method_decl, 567), (sym_prog_access_decls, 3043), (sym_SFC, 7970),
     (sym_SFC_network, 7612), (sym_initial_step, 7439), (sym_config_init, 3047),
     (sym_using_directive, 231), (sym_variable_access, 7530), (sym_func_call, 2961),
     (sym_stmt_list, 7970), (sym__stmt, 2024), (sym_assign, 3150), (sym_if_stmt, 3150),
     (sym_case_stmt, 3150), (sym_for_stmt, 3150), (sym_while_stmt, 3150), (sym_repeat_stmt, 3150),
     (sym_raise_stmt, 3150), (sym_try_stmt, 3150), (sym_ERR_clause_outside_try, 3150),
     (sym_begin_path_expression, 2943), (sym_invocation, 2934), (sym_any_invocation, 2935),
     (sym_this_invocation, 2641), (sym_super_invocation, 2641), (sym_super_body_invocation, 2935),
     (sym_path_expression, 2627), (sym_field_expression, 2373), (sym_index_expression, 2373),
     (sym_ladder_diagram, 7970), (sym_fb_diagram, 7970),
     (aux_sym_ERR_fb_variables_after_method_repeat1, 565), (aux_sym_func_decl_repeat1, 7194),
     (aux_sym_func_decl_repeat2, 231), (aux_sym_fb_decl_repeat2, 2978),
     (aux_sym_fb_decl_repeat3, 567), (aux_sym_SFC_repeat1, 7612), (aux_sym_stmt_list_repeat1, 2024),
     (aux_sym_ladder_diagram_repeat1, 8009), (aux_sym_fb_diagram_repeat1, 8013),
     (sym_identifier, 298), (aux_sym_ERR_implements_before_extends_token1, 486),
     (aux_sym_ERR_unexpected_this_in_path_token1, 304),
     (aux_sym_ERR_unexpected_super_in_path_token1, 306), (sym_line_comment, 3),
     (anon_sym_LBRACE, 308), (aux_sym_test_pragma_token1, 9), (aux_sym_once_pragma_token1, 11),
     (aux_sym_must_call_pragma_token1, 13), (aux_sym_export_pragma_token1, 15),
     (anon_sym_SEMI, 310), (anon_sym_PERCENT, 312), (aux_sym_input_decls_token1, 314),
     (aux_sym_output_decls_token1, 316), (aux_sym_in_out_decls_token1, 318),
     (aux_sym_var_decls_token1, 320), (aux_sym_temp_var_decls_token1, 322),
     (aux_sym_external_var_decls_token1, 324), (aux_sym_global_var_decls_token1, 326),
     (aux_sym_fb_decl_token4, 558), (aux_sym_method_decl_token1, 330),
     (aux_sym_prog_access_decls_token1, 332), (aux_sym_initial_step_token1, 334),
     (aux_sym_config_init_token1, 336), (aux_sym_using_directive_token1, 338),
     (aux_sym__stmt_token1, 340), (aux_sym__stmt_token2, 340), (aux_sym__stmt_token3, 340),
     (aux_sym_if_stmt_token1, 342), (aux_sym_case_stmt_token1, 344), (aux_sym_for_stmt_token1, 346),
     (aux_sym_while_stmt_token1, 348), (aux_sym_repeat_stmt_token1, 350),
     (aux_sym_raise_stmt_token1, 352), (aux_sym_try_stmt_token1, 354),
     (aux_sym_try_stmt_token2, 356), (aux_sym_catch_clause_token1, 356),
     (aux_sym_finally_clause_token1, 356), (sym_ld_rung, 358), (sym_fbd_network, 360),
     (sym_c_style_comment, 3), (sym_pascal_style_comment, 3), (sym_pragma, 3)]"

lemma ts_parse_row_161_scan: "row_scan tokens_63_2 0 ts_parse_row_161 = Some (Suc (Suc (Suc (Suc 0))))"
  unfolding ts_parse_row_161_def by simp

text \<open>Lines 72947 to 73065.\<close>

definition ts_parse_row_162 :: parse_row where
  "ts_parse_row_162 =
    [(sym_ERR_implements_multiple_times, 2978), (sym_ERR_assign_func_call, 7530),
     (sym_ERR_unexpected_this_in_path, 2372), (sym_ERR_unexpected_super_in_path, 2372),
     (sym_ERR_fb_variables_after_method, 1410), (sym_ERR_var_access_not_allowed, 3160),
     (sym_ERR_var_config_not_allowed, 3160), (sym_ERR_var_global_not_allowed, 3160),
     (sym_ERR_method_decl_in_body, 3150), (sym_extern_pragma, 7490), (sym_wasm_pragma, 3150),
     (sym_warn_pragma, 7490), (sym_allow_pragma, 3140), (sym_test_pragma, 7490),
     (sym_once_pragma, 7490), (sym_must_call_pragma, 7490), (sym_export_pragma, 7490),
     (sym_pou_pragma, 7194), (sym_direct_variable, 7675), (sym_deref_expression, 2373),
     (sym_variable, 7599), (sym_var_access, 2373), (sym_in_out_decls, 3160), (sym_var_decls, 3160),
     (sym_retain_var_decls, 3160), (sym_temp_var_decls, 3160), (sym_external_var_decls, 3160),
     (sym_global_var_decls, 2947), (sym_loc_partly_var_decl, 3160), (sym__fb_variables, 874),
     (sym_fb_input_decls, 3160), (sym_fb_output_decls, 3160), (sym_no_retain_var_decls, 3160),
     (sym_fb_body, 10007), (sym_method_decl, 876), (sym_prog_access_decls, 3043), (sym_SFC, 7970),
     (sym_SFC_network, 7612), (sym_initial_step, 7439), (sym_config_init, 3047),
     (sym_using_directive, 280), (sym_variable_access, 7530), (sym_func_call, 2961),
     (sym_stmt_list, 7970), (sym__stmt, 2024), (sym_assign, 3150), (sym_if_stmt, 3150),
     (sym_case_stmt, 3150), (sym_for_stmt, 3150), (sym_while_stmt, 3150), (sym_repeat_stmt, 3150),
     (sym_raise_stmt, 3150), (sym_try_stmt, 3150), (sym_ERR_clause_outside_try, 3150),
     (sym_begin_path_expression, 2943), (sym_invocation, 2934), (sym_any_invocation, 2935),
     (sym_this_invocation, 2641), (sym_super_invocation, 2641), (sym_super_body_invocation, 2935),
     (sym_path_expression, 2627), (sym_field_expression, 2373), (sym_index_expression, 2373),
     (sym_ladder_diagram, 7970), (sym_fb_diagram, 7970),
     (aux_sym_ERR_fb_variables_after_method_repeat1, 874), (aux_sym_func_decl_repeat1, 7194),
     (aux_sym_func_decl_repeat2, 280), (aux_sym_fb_decl_repeat2, 2978),
     (aux_sym_fb_decl_repeat3, 876), (aux_sym_SFC_repeat1, 7612), (aux_sym_stmt_list_repeat1, 2024),
     (aux_sym_ladder_diagram_repeat1, 8009), (aux_sym_fb_diagram_repeat1, 8013),
     (sym_identifier, 298), (aux_sym_ERR_implements_before_extends_token1, 486),
     (aux_sym_ERR_unexpected_this_in_path_token1, 304),
     (aux_sym_ERR_unexpected_super_in_path_token1, 306), (sym_line_comment, 3),
     (anon_sym_LBRACE, 308), (aux_sym_test_pragma_token1, 9), (aux_sym_once_pragma_token1, 11),
     (aux_sym_must_call_pragma_token1, 13), (aux_sym_export_pragma_token1, 15),
     (anon_sym_SEMI, 310), (anon_sym_PERCENT, 312), (aux_sym_input_decls_token1, 314),
     (aux_sym_output_decls_token1, 316), (aux_sym_in_out_decls_token1, 318),
     (aux_sym_var_decls_token1, 320), (aux_sym_temp_var_decls_token1, 322),
     (aux_sym_external_var_decls_token1, 324), (aux_sym_global_var_decls_token1, 326),
     (aux_sym_fb_decl_token4, 560), (aux_sym_method_decl_token1, 330),
     (aux_sym_prog_access_decls_token1, 332), (aux_sym_initial_step_token1, 334),
     (aux_sym_config_init_token1, 336), (aux_sym_using_directive_token1, 338),
     (aux_sym__stmt_token1, 340), (aux_sym__stmt_token2, 340), (aux_sym__stmt_token3, 340),
     (aux_sym_if_stmt_token1, 342), (aux_sym_case_stmt_token1, 344), (aux_sym_for_stmt_token1, 346),
     (aux_sym_while_stmt_token1, 348), (aux_sym_repeat_stmt_token1, 350),
     (aux_sym_raise_stmt_token1, 352), (aux_sym_try_stmt_token1, 354),
     (aux_sym_try_stmt_token2, 356), (aux_sym_catch_clause_token1, 356),
     (aux_sym_finally_clause_token1, 356), (sym_ld_rung, 358), (sym_fbd_network, 360),
     (sym_c_style_comment, 3), (sym_pascal_style_comment, 3), (sym_pragma, 3)]"

lemma ts_parse_row_162_scan: "row_scan tokens_63_2 0 ts_parse_row_162 = Some (Suc (Suc (Suc (Suc 0))))"
  unfolding ts_parse_row_162_def by simp

text \<open>Lines 73066 to 73184.\<close>

definition ts_parse_row_163 :: parse_row where
  "ts_parse_row_163 =
    [(sym_ERR_implements_multiple_times, 2978), (sym_ERR_assign_func_call, 7530),
     (sym_ERR_unexpected_this_in_path, 2372), (sym_ERR_unexpected_super_in_path, 2372),
     (sym_ERR_fb_variables_after_method, 1320), (sym_ERR_var_access_not_allowed, 3160),
     (sym_ERR_var_config_not_allowed, 3160), (sym_ERR_var_global_not_allowed, 3160),
     (sym_ERR_method_decl_in_body, 3150), (sym_extern_pragma, 7490), (sym_wasm_pragma, 3150),
     (sym_warn_pragma, 7490), (sym_allow_pragma, 3140), (sym_test_pragma, 7490),
     (sym_once_pragma, 7490), (sym_must_call_pragma, 7490), (sym_export_pragma, 7490),
     (sym_pou_pragma, 7194), (sym_direct_variable, 7675), (sym_deref_expression, 2373),
     (sym_variable, 7599), (sym_var_access, 2373), (sym_in_out_decls, 3160), (sym_var_decls, 3160),
     (sym_retain_var_decls, 3160), (sym_temp_var_decls, 3160), (sym_external_var_decls, 3160),
     (sym_global_var_decls, 2947), (sym_loc_partly_var_decl, 3160), (sym__fb_variables, 572),
     (sym_fb_input_decls, 3160), (sym_fb_output_decls, 3160), (sym_no_retain_var_decls, 3160),
     (sym_fb_body, 9825), (sym_method_decl, 575), (sym_prog_access_decls, 3043), (sym_SFC, 7970),
     (sym_SFC_network, 7612), (sym_initial_step, 7439), (sym_config_init, 3047),
     (sym_using_directive, 233), (sym_variable_access, 7530), (sym_func_call, 2961),
     (sym_stmt_list, 7970), (sym__stmt, 2024), (sym_assign, 3150), (sym_if_stmt, 3150),
     (sym_case_stmt, 3150), (sym_for_stmt, 3150), (sym_while_stmt, 3150), (sym_repeat_stmt, 3150),
     (sym_raise_stmt, 3150), (sym_try_stmt, 3150), (sym_ERR_clause_outside_try, 3150),
     (sym_begin_path_expression, 2943), (sym_invocation, 2934), (sym_any_invocation, 2935),
     (sym_this_invocation, 2641), (sym_super_invocation, 2641), (sym_super_body_invocation, 2935),
     (sym_path_expression, 2627), (sym_field_expression, 2373), (sym_index_expression, 2373),
     (sym_ladder_diagram, 7970), (sym_fb_diagram, 7970),
     (aux_sym_ERR_fb_variables_after_method_repeat1, 572), (aux_sym_func_decl_repeat1, 7194),
     (aux_sym_func_decl_repeat2, 233), (aux_sym_fb_decl_repeat2, 2978),
     (aux_sym_fb_decl_repeat3, 575), (aux_sym_SFC_repeat1, 7612), (aux_sym_stmt_list_repeat1, 2024),
     (aux_sym_ladder_diagram_repeat1, 8009), (aux_sym_fb_diagram_repeat1, 8013),
     (sym_identifier, 298), (aux_sym_ERR_implements_before_extends_token1, 486),
     (aux_sym_ERR_unexpected_this_in_path_token1, 304),
     (aux_sym_ERR_unexpected_super_in_path_token1, 306), (sym_line_comment, 3),
     (anon_sym_LBRACE, 308), (aux_sym_test_pragma_token1, 9), (aux_sym_once_pragma_token1, 11),
     (aux_sym_must_call_pragma_token1, 13), (aux_sym_export_pragma_token1, 15),
     (anon_sym_SEMI, 310), (anon_sym_PERCENT, 312), (aux_sym_input_decls_token1, 314),
     (aux_sym_output_decls_token1, 316), (aux_sym_in_out_decls_token1, 318),
     (aux_sym_var_decls_token1, 320), (aux_sym_temp_var_decls_token1, 322),
     (aux_sym_external_var_decls_token1, 324), (aux_sym_global_var_decls_token1, 326),
     (aux_sym_fb_decl_token4, 434), (aux_sym_method_decl_token1, 330),
     (aux_sym_prog_access_decls_token1, 332), (aux_sym_initial_step_token1, 334),
     (aux_sym_config_init_token1, 336), (aux_sym_using_directive_token1, 338),
     (aux_sym__stmt_token1, 340), (aux_sym__stmt_token2, 340), (aux_sym__stmt_token3, 340),
     (aux_sym_if_stmt_token1, 342), (aux_sym_case_stmt_token1, 344), (aux_sym_for_stmt_token1, 346),
     (aux_sym_while_stmt_token1, 348), (aux_sym_repeat_stmt_token1, 350),
     (aux_sym_raise_stmt_token1, 352), (aux_sym_try_stmt_token1, 354),
     (aux_sym_try_stmt_token2, 356), (aux_sym_catch_clause_token1, 356),
     (aux_sym_finally_clause_token1, 356), (sym_ld_rung, 358), (sym_fbd_network, 360),
     (sym_c_style_comment, 3), (sym_pascal_style_comment, 3), (sym_pragma, 3)]"

lemma ts_parse_row_163_scan: "row_scan tokens_63_2 0 ts_parse_row_163 = Some (Suc (Suc (Suc (Suc 0))))"
  unfolding ts_parse_row_163_def by simp

text \<open>Lines 73185 to 73303.\<close>

definition ts_parse_row_164 :: parse_row where
  "ts_parse_row_164 =
    [(sym_ERR_implements_multiple_times, 177), (sym_ERR_assign_func_call, 7530),
     (sym_ERR_unexpected_this_in_path, 2372), (sym_ERR_unexpected_super_in_path, 2372),
     (sym_ERR_fb_variables_after_method, 1324), (sym_ERR_var_access_not_allowed, 3160),
     (sym_ERR_var_config_not_allowed, 3160), (sym_ERR_var_global_not_allowed, 3160),
     (sym_ERR_method_decl_in_body, 3150), (sym_extern_pragma, 7490), (sym_wasm_pragma, 3150),
     (sym_warn_pragma, 7490), (sym_allow_pragma, 3140), (sym_test_pragma, 7490),
     (sym_once_pragma, 7490), (sym_must_call_pragma, 7490), (sym_export_pragma, 7490),
     (sym_pou_pragma, 7194), (sym_direct_variable, 7675), (sym_deref_expression, 2373),
     (sym_variable, 7599), (sym_var_access, 2373), (sym_in_out_decls, 3160), (sym_var_decls, 3160),
     (sym_retain_var_decls, 3160), (sym_temp_var_decls, 3160), (sym_external_var_decls, 3160),
     (sym_global_var_decls, 2947), (sym_loc_partly_var_decl, 3160), (sym__fb_variables, 576),
     (sym_fb_input_decls, 3160), (sym_fb_output_decls, 3160), (sym_no_retain_var_decls, 3160),
     (sym_fb_body, 10013), (sym_method_decl, 579), (sym_prog_access_decls, 3043), (sym_SFC, 7970),
     (sym_SFC_network, 7612), (sym_initial_step, 7439), (sym_config_init, 3047),
     (sym_using_directive, 235), (sym_variable_access, 7530), (sym_func_call, 2961),
     (sym_stmt_list, 7970), (sym__stmt, 2024), (sym_assign, 3150), (sym_if_stmt, 3150),
     (sym_case_stmt, 3150), (sym_for_stmt, 3150), (sym_while_stmt, 3150), (sym_repeat_stmt, 3150),
     (sym_raise_stmt, 3150), (sym_try_stmt, 3150), (sym_ERR_clause_outside_try, 3150),
     (sym_begin_path_expression, 2943), (sym_invocation, 2934), (sym_any_invocation, 2935),
     (sym_this_invocation, 2641), (sym_super_invocation, 2641), (sym_super_body_invocation, 2935),
     (sym_path_expression, 2627), (sym_field_expression, 2373), (sym_index_expression, 2373),
     (sym_ladder_diagram, 7970), (sym_fb_diagram, 7970),
     (aux_sym_ERR_fb_variables_after_method_repeat1, 576), (aux_sym_func_decl_repeat1, 7194),
     (aux_sym_func_decl_repeat2, 235), (aux_sym_fb_decl_repeat2, 177),
     (aux_sym_fb_decl_repeat3, 579), (aux_sym_SFC_repeat1, 7612), (aux_sym_stmt_list_repeat1, 2024),
     (aux_sym_ladder_diagram_repeat1, 8009), (aux_sym_fb_diagram_repeat1, 8013),
     (sym_identifier, 298), (aux_sym_ERR_implements_before_extends_token1, 486),
     (aux_sym_ERR_unexpected_this_in_path_token1, 304),
     (aux_sym_ERR_unexpected_super_in_path_token1, 306), (sym_line_comment, 3),
     (anon_sym_LBRACE, 308), (aux_sym_test_pragma_token1, 9), (aux_sym_once_pragma_token1, 11),
     (aux_sym_must_call_pragma_token1, 13), (aux_sym_export_pragma_token1, 15),
     (anon_sym_SEMI, 310), (anon_sym_PERCENT, 312), (aux_sym_input_decls_token1, 314),
     (aux_sym_output_decls_token1, 316), (aux_sym_in_out_decls_token1, 318),
     (aux_sym_var_decls_token1, 320), (aux_sym_temp_var_decls_token1, 322),
     (aux_sym_external_var_decls_token1, 324), (aux_sym_global_var_decls_token1, 326),
     (aux_sym_fb_decl_token4, 562), (aux_sym_method_decl_token1, 330),
     (aux_sym_prog_access_decls_token1, 332), (aux_sym_initial_step_token1, 334),
     (aux_sym_config_init_token1, 336), (aux_sym_using_directive_token1, 338),
     (aux_sym__stmt_token1, 340), (aux_sym__stmt_token2, 340), (aux_sym__stmt_token3, 340),
     (aux_sym_if_stmt_token1, 342), (aux_sym_case_stmt_token1, 344), (aux_sym_for_stmt_token1, 346),
     (aux_sym_while_stmt_token1, 348), (aux_sym_repeat_stmt_token1, 350),
     (aux_sym_raise_stmt_token1, 352), (aux_sym_try_stmt_token1, 354),
     (aux_sym_try_stmt_token2, 356), (aux_sym_catch_clause_token1, 356),
     (aux_sym_finally_clause_token1, 356), (sym_ld_rung, 358), (sym_fbd_network, 360),
     (sym_c_style_comment, 3), (sym_pascal_style_comment, 3), (sym_pragma, 3)]"

lemma ts_parse_row_164_scan: "row_scan tokens_63_2 0 ts_parse_row_164 = Some (Suc (Suc (Suc (Suc 0))))"
  unfolding ts_parse_row_164_def by simp

text \<open>Lines 73304 to 73422.\<close>

definition ts_parse_row_165 :: parse_row where
  "ts_parse_row_165 =
    [(sym_ERR_implements_multiple_times, 178), (sym_ERR_assign_func_call, 7530),
     (sym_ERR_unexpected_this_in_path, 2372), (sym_ERR_unexpected_super_in_path, 2372),
     (sym_ERR_fb_variables_after_method, 1345), (sym_ERR_var_access_not_allowed, 3160),
     (sym_ERR_var_config_not_allowed, 3160), (sym_ERR_var_global_not_allowed, 3160),
     (sym_ERR_method_decl_in_body, 3150), (sym_extern_pragma, 7490), (sym_wasm_pragma, 3150),
     (sym_warn_pragma, 7490), (sym_allow_pragma, 3140), (sym_test_pragma, 7490),
     (sym_once_pragma, 7490), (sym_must_call_pragma, 7490), (sym_export_pragma, 7490),
     (sym_pou_pragma, 7194), (sym_direct_variable, 7675), (sym_deref_expression, 2373),
     (sym_variable, 7599), (sym_var_access, 2373), (sym_in_out_decls, 3160), (sym_var_decls, 3160),
     (sym_retain_var_decls, 3160), (sym_temp_var_decls, 3160), (sym_external_var_decls, 3160),
     (sym_global_var_decls, 2947), (sym_loc_partly_var_decl, 3160), (sym__fb_variables, 591),
     (sym_fb_input_decls, 3160), (sym_fb_output_decls, 3160), (sym_no_retain_var_decls, 3160),
     (sym_fb_body, 10425), (sym_method_decl, 594), (sym_prog_access_decls, 3043), (sym_SFC, 7970),
     (sym_SFC_network, 7612), (sym_initial_step, 7439), (sym_config_init, 3047),
     (sym_using_directive, 238), (sym_variable_access, 7530), (sym_func_call, 2961),
     (sym_stmt_list, 7970), (sym__stmt, 2024), (sym_assign, 3150), (sym_if_stmt, 3150),
     (sym_case_stmt, 3150), (sym_for_stmt, 3150), (sym_while_stmt, 3150), (sym_repeat_stmt, 3150),
     (sym_raise_stmt, 3150), (sym_try_stmt, 3150), (sym_ERR_clause_outside_try, 3150),
     (sym_begin_path_expression, 2943), (sym_invocation, 2934), (sym_any_invocation, 2935),
     (sym_this_invocation, 2641), (sym_super_invocation, 2641), (sym_super_body_invocation, 2935),
     (sym_path_expression, 2627), (sym_field_expression, 2373), (sym_index_expression, 2373),
     (sym_ladder_diagram, 7970), (sym_fb_diagram, 7970),
     (aux_sym_ERR_fb_variables_after_method_repeat1, 591), (aux_sym_func_decl_repeat1, 7194),
     (aux_sym_func_decl_repeat2, 238), (aux_sym_fb_decl_repeat2, 178),
     (aux_sym_fb_decl_repeat3, 594), (aux_sym_SFC_repeat1, 7612), (aux_sym_stmt_list_repeat1, 2024),
     (aux_sym_ladder_diagram_repeat1, 8009), (aux_sym_fb_diagram_repeat1, 8013),
     (sym_identifier, 298), (aux_sym_ERR_implements_before_extends_token1, 486),
     (aux_sym_ERR_unexpected_this_in_path_token1, 304),
     (aux_sym_ERR_unexpected_super_in_path_token1, 306), (sym_line_comment, 3),
     (anon_sym_LBRACE, 308), (aux_sym_test_pragma_token1, 9), (aux_sym_once_pragma_token1, 11),
     (aux_sym_must_call_pragma_token1, 13), (aux_sym_export_pragma_token1, 15),
     (anon_sym_SEMI, 310), (anon_sym_PERCENT, 312), (aux_sym_input_decls_token1, 314),
     (aux_sym_output_decls_token1, 316), (aux_sym_in_out_decls_token1, 318),
     (aux_sym_var_decls_token1, 320), (aux_sym_temp_var_decls_token1, 322),
     (aux_sym_external_var_decls_token1, 324), (aux_sym_global_var_decls_token1, 326),
     (aux_sym_fb_decl_token4, 564), (aux_sym_method_decl_token1, 330),
     (aux_sym_prog_access_decls_token1, 332), (aux_sym_initial_step_token1, 334),
     (aux_sym_config_init_token1, 336), (aux_sym_using_directive_token1, 338),
     (aux_sym__stmt_token1, 340), (aux_sym__stmt_token2, 340), (aux_sym__stmt_token3, 340),
     (aux_sym_if_stmt_token1, 342), (aux_sym_case_stmt_token1, 344), (aux_sym_for_stmt_token1, 346),
     (aux_sym_while_stmt_token1, 348), (aux_sym_repeat_stmt_token1, 350),
     (aux_sym_raise_stmt_token1, 352), (aux_sym_try_stmt_token1, 354),
     (aux_sym_try_stmt_token2, 356), (aux_sym_catch_clause_token1, 356),
     (aux_sym_finally_clause_token1, 356), (sym_ld_rung, 358), (sym_fbd_network, 360),
     (sym_c_style_comment, 3), (sym_pascal_style_comment, 3), (sym_pragma, 3)]"

lemma ts_parse_row_165_scan: "row_scan tokens_63_2 0 ts_parse_row_165 = Some (Suc (Suc (Suc (Suc 0))))"
  unfolding ts_parse_row_165_def by simp

text \<open>Lines 73423 to 73541.\<close>

definition ts_parse_row_166 :: parse_row where
  "ts_parse_row_166 =
    [(sym_ERR_implements_multiple_times, 179), (sym_ERR_assign_func_call, 7530),
     (sym_ERR_unexpected_this_in_path, 2372), (sym_ERR_unexpected_super_in_path, 2372),
     (sym_ERR_fb_variables_after_method, 1358), (sym_ERR_var_access_not_allowed, 3160),
     (sym_ERR_var_config_not_allowed, 3160), (sym_ERR_var_global_not_allowed, 3160),
     (sym_ERR_method_decl_in_body, 3150), (sym_extern_pragma, 7490), (sym_wasm_pragma, 3150),
     (sym_warn_pragma, 7490), (sym_allow_pragma, 3140), (sym_test_pragma, 7490),
     (sym_once_pragma, 7490), (sym_must_call_pragma, 7490), (sym_export_pragma, 7490),
     (sym_pou_pragma, 7194), (sym_direct_variable, 7675), (sym_deref_expression, 2373),
     (sym_variable, 7599), (sym_var_access, 2373), (sym_in_out_decls, 3160), (sym_var_decls, 3160),
     (sym_retain_var_decls, 3160), (sym_temp_var_decls, 3160), (sym_external_var_decls, 3160),
     (sym_global_var_decls, 2947), (sym_loc_partly_var_decl, 3160), (sym__fb_variables, 603),
     (sym_fb_input_decls, 3160), (sym_fb_output_decls, 3160), (sym_no_retain_var_decls, 3160),
     (sym_fb_body, 9912), (sym_method_decl, 606), (sym_prog_access_decls, 3043), (sym_SFC, 7970),
     (sym_SFC_network, 7612), (sym_initial_step, 7439), (sym_config_init, 3047),
     (sym_using_directive, 240), (sym_variable_access, 7530), (sym_func_call, 2961),
     (sym_stmt_list, 7970), (sym__stmt, 2024), (sym_assign, 3150), (sym_if_stmt, 3150),
     (sym_case_stmt, 3150), (sym_for_stmt, 3150), (sym_while_stmt, 3150), (sym_repeat_stmt, 3150),
     (sym_raise_stmt, 3150), (sym_try_stmt, 3150), (sym_ERR_clause_outside_try, 3150),
     (sym_begin_path_expression, 2943), (sym_invocation, 2934), (sym_any_invocation, 2935),
     (sym_this_invocation, 2641), (sym_super_invocation, 2641), (sym_super_body_invocation, 2935),
     (sym_path_expression, 2627), (sym_field_expression, 2373), (sym_index_expression, 2373),
     (sym_ladder_diagram, 7970), (sym_fb_diagram, 7970),
     (aux_sym_ERR_fb_variables_after_method_repeat1, 603), (aux_sym_func_decl_repeat1, 7194),
     (aux_sym_func_decl_repeat2, 240), (aux_sym_fb_decl_repeat2, 179),
     (aux_sym_fb_decl_repeat3, 606), (aux_sym_SFC_repeat1, 7612), (aux_sym_stmt_list_repeat1, 2024),
     (aux_sym_ladder_diagram_repeat1, 8009), (aux_sym_fb_diagram_repeat1, 8013),
     (sym_identifier, 298), (aux_sym_ERR_implements_before_extends_token1, 486),
     (aux_sym_ERR_unexpected_this_in_path_token1, 304),
     (aux_sym_ERR_unexpected_super_in_path_token1, 306), (sym_line_comment, 3),
     (anon_sym_LBRACE, 308), (aux_sym_test_pragma_token1, 9), (aux_sym_once_pragma_token1, 11),
     (aux_sym_must_call_pragma_token1, 13), (aux_sym_export_pragma_token1, 15),
     (anon_sym_SEMI, 310), (anon_sym_PERCENT, 312), (aux_sym_input_decls_token1, 314),
     (aux_sym_output_decls_token1, 316), (aux_sym_in_out_decls_token1, 318),
     (aux_sym_var_decls_token1, 320), (aux_sym_temp_var_decls_token1, 322),
     (aux_sym_external_var_decls_token1, 324), (aux_sym_global_var_decls_token1, 326),
     (aux_sym_fb_decl_token4, 566), (aux_sym_method_decl_token1, 330),
     (aux_sym_prog_access_decls_token1, 332), (aux_sym_initial_step_token1, 334),
     (aux_sym_config_init_token1, 336), (aux_sym_using_directive_token1, 338),
     (aux_sym__stmt_token1, 340), (aux_sym__stmt_token2, 340), (aux_sym__stmt_token3, 340),
     (aux_sym_if_stmt_token1, 342), (aux_sym_case_stmt_token1, 344), (aux_sym_for_stmt_token1, 346),
     (aux_sym_while_stmt_token1, 348), (aux_sym_repeat_stmt_token1, 350),
     (aux_sym_raise_stmt_token1, 352), (aux_sym_try_stmt_token1, 354),
     (aux_sym_try_stmt_token2, 356), (aux_sym_catch_clause_token1, 356),
     (aux_sym_finally_clause_token1, 356), (sym_ld_rung, 358), (sym_fbd_network, 360),
     (sym_c_style_comment, 3), (sym_pascal_style_comment, 3), (sym_pragma, 3)]"

lemma ts_parse_row_166_scan: "row_scan tokens_63_2 0 ts_parse_row_166 = Some (Suc (Suc (Suc (Suc 0))))"
  unfolding ts_parse_row_166_def by simp

text \<open>Lines 73542 to 73660.\<close>

definition ts_parse_row_167 :: parse_row where
  "ts_parse_row_167 =
    [(sym_ERR_implements_multiple_times, 2978), (sym_ERR_assign_func_call, 7530),
     (sym_ERR_unexpected_this_in_path, 2372), (sym_ERR_unexpected_super_in_path, 2372),
     (sym_ERR_fb_variables_after_method, 1364), (sym_ERR_var_access_not_allowed, 3160),
     (sym_ERR_var_config_not_allowed, 3160), (sym_ERR_var_global_not_allowed, 3160),
     (sym_ERR_method_decl_in_body, 3150), (sym_extern_pragma, 7490), (sym_wasm_pragma, 3150),
     (sym_warn_pragma, 7490), (sym_allow_pragma, 3140), (sym_test_pragma, 7490),
     (sym_once_pragma, 7490), (sym_must_call_pragma, 7490), (sym_export_pragma, 7490),
     (sym_pou_pragma, 7194), (sym_direct_variable, 7675), (sym_deref_expression, 2373),
     (sym_variable, 7599), (sym_var_access, 2373), (sym_in_out_decls, 3160), (sym_var_decls, 3160),
     (sym_retain_var_decls, 3160), (sym_temp_var_decls, 3160), (sym_external_var_decls, 3160),
     (sym_global_var_decls, 2947), (sym_loc_partly_var_decl, 3160), (sym__fb_variables, 612),
     (sym_fb_input_decls, 3160), (sym_fb_output_decls, 3160), (sym_no_retain_var_decls, 3160),
     (sym_fb_body, 8446), (sym_method_decl, 614), (sym_prog_access_decls, 3043), (sym_SFC, 7970),
     (sym_SFC_network, 7612), (sym_initial_step, 7439), (sym_config_init, 3047),
     (sym_using_directive, 243), (sym_variable_access, 7530), (sym_func_call, 2961),
     (sym_stmt_list, 7970), (sym__stmt, 2024), (sym_assign, 3150), (sym_if_stmt, 3150),
     (sym_case_stmt, 3150), (sym_for_stmt, 3150), (sym_while_stmt, 3150), (sym_repeat_stmt, 3150),
     (sym_raise_stmt, 3150), (sym_try_stmt, 3150), (sym_ERR_clause_outside_try, 3150),
     (sym_begin_path_expression, 2943), (sym_invocation, 2934), (sym_any_invocation, 2935),
     (sym_this_invocation, 2641), (sym_super_invocation, 2641), (sym_super_body_invocation, 2935),
     (sym_path_expression, 2627), (sym_field_expression, 2373), (sym_index_expression, 2373),
     (sym_ladder_diagram, 7970), (sym_fb_diagram, 7970),
     (aux_sym_ERR_fb_variables_after_method_repeat1, 612), (aux_sym_func_decl_repeat1, 7194),
     (aux_sym_func_decl_repeat2, 243), (aux_sym_fb_decl_repeat2, 2978),
     (aux_sym_fb_decl_repeat3, 614), (aux_sym_SFC_repeat1, 7612), (aux_sym_stmt_list_repeat1, 2024),
     (aux_sym_ladder_diagram_repeat1, 8009), (aux_sym_fb_diagram_repeat1, 8013),
     (sym_identifier, 298), (aux_sym_ERR_implements_before_extends_token1, 486),
     (aux_sym_ERR_unexpected_this_in_path_token1, 304),
     (aux_sym_ERR_unexpected_super_in_path_token1, 306), (sym_line_comment, 3),
     (anon_sym_LBRACE, 308), (aux_sym_test_pragma_token1, 9), (aux_sym_once_pragma_token1, 11),
     (aux_sym_must_call_pragma_token1, 13), (aux_sym_export_pragma_token1, 15),
     (anon_sym_SEMI, 310), (anon_sym_PERCENT, 312), (aux_sym_input_decls_token1, 314),
     (aux_sym_output_decls_token1, 316), (aux_sym_in_out_decls_token1, 318),
     (aux_sym_var_decls_token1, 320), (aux_sym_temp_var_decls_token1, 322),
     (aux_sym_external_var_decls_token1, 324), (aux_sym_global_var_decls_token1, 326),
     (aux_sym_fb_decl_token4, 568), (aux_sym_method_decl_token1, 330),
     (aux_sym_prog_access_decls_token1, 332), (aux_sym_initial_step_token1, 334),
     (aux_sym_config_init_token1, 336), (aux_sym_using_directive_token1, 338),
     (aux_sym__stmt_token1, 340), (aux_sym__stmt_token2, 340), (aux_sym__stmt_token3, 340),
     (aux_sym_if_stmt_token1, 342), (aux_sym_case_stmt_token1, 344), (aux_sym_for_stmt_token1, 346),
     (aux_sym_while_stmt_token1, 348), (aux_sym_repeat_stmt_token1, 350),
     (aux_sym_raise_stmt_token1, 352), (aux_sym_try_stmt_token1, 354),
     (aux_sym_try_stmt_token2, 356), (aux_sym_catch_clause_token1, 356),
     (aux_sym_finally_clause_token1, 356), (sym_ld_rung, 358), (sym_fbd_network, 360),
     (sym_c_style_comment, 3), (sym_pascal_style_comment, 3), (sym_pragma, 3)]"

lemma ts_parse_row_167_scan: "row_scan tokens_63_2 0 ts_parse_row_167 = Some (Suc (Suc (Suc (Suc 0))))"
  unfolding ts_parse_row_167_def by simp

text \<open>Lines 73661 to 73779.\<close>

definition ts_parse_row_168 :: parse_row where
  "ts_parse_row_168 =
    [(sym_ERR_implements_multiple_times, 2978), (sym_ERR_assign_func_call, 7530),
     (sym_ERR_unexpected_this_in_path, 2372), (sym_ERR_unexpected_super_in_path, 2372),
     (sym_ERR_fb_variables_after_method, 1369), (sym_ERR_var_access_not_allowed, 3160),
     (sym_ERR_var_config_not_allowed, 3160), (sym_ERR_var_global_not_allowed, 3160),
     (sym_ERR_method_decl_in_body, 3150), (sym_extern_pragma, 7490), (sym_wasm_pragma, 3150),
     (sym_warn_pragma, 7490), (sym_allow_pragma, 3140), (sym_test_pragma, 7490),
     (sym_once_pragma, 7490), (sym_must_call_pragma, 7490), (sym_export_pragma, 7490),
     (sym_pou_pragma, 7194), (sym_direct_variable, 7675), (sym_deref_expression, 2373),
     (sym_variable, 7599), (sym_var_access, 2373), (sym_in_out_decls, 3160), (sym_var_decls, 3160),
     (sym_retain_var_decls, 3160), (sym_temp_var_decls, 3160), (sym_external_var_decls, 3160),
     (sym_global_var_decls, 2947), (sym_loc_partly_var_decl, 3160), (sym__fb_variables, 618),
     (sym_fb_input_decls, 3160), (sym_fb_output_decls, 3160), (sym_no_retain_var_decls, 3160),
     (sym_fb_body, 9217), (sym_method_decl, 620), (sym_prog_access_decls, 3043), (sym_SFC, 7970),
     (sym_SFC_network, 7612), (sym_initial_step, 7439), (sym_config_init, 3047),
     (sym_using_directive, 244), (sym_variable_access, 7530), (sym_func_call, 2961),
     (sym_stmt_list, 7970), (sym__stmt, 2024), (sym_assign, 3150), (sym_if_stmt, 3150),
     (sym_case_stmt, 3150), (sym_for_stmt, 3150), (sym_while_stmt, 3150), (sym_repeat_stmt, 3150),
     (sym_raise_stmt, 3150), (sym_try_stmt, 3150), (sym_ERR_clause_outside_try, 3150),
     (sym_begin_path_expression, 2943), (sym_invocation, 2934), (sym_any_invocation, 2935),
     (sym_this_invocation, 2641), (sym_super_invocation, 2641), (sym_super_body_invocation, 2935),
     (sym_path_expression, 2627), (sym_field_expression, 2373), (sym_index_expression, 2373),
     (sym_ladder_diagram, 7970), (sym_fb_diagram, 7970),
     (aux_sym_ERR_fb_variables_after_method_repeat1, 618), (aux_sym_func_decl_repeat1, 7194),
     (aux_sym_func_decl_repeat2, 244), (aux_sym_fb_decl_repeat2, 2978),
     (aux_sym_fb_decl_repeat3, 620), (aux_sym_SFC_repeat1, 7612), (aux_sym_stmt_list_repeat1, 2024),
     (aux_sym_ladder_diagram_repeat1, 8009), (aux_sym_fb_diagram_repeat1, 8013),
     (sym_identifier, 298), (aux_sym_ERR_implements_before_extends_token1, 486),
     (aux_sym_ERR_unexpected_this_in_path_token1, 304),
     (aux_sym_ERR_unexpected_super_in_path_token1, 306), (sym_line_comment, 3),
     (anon_sym_LBRACE, 308), (aux_sym_test_pragma_token1, 9), (aux_sym_once_pragma_token1, 11),
     (aux_sym_must_call_pragma_token1, 13), (aux_sym_export_pragma_token1, 15),
     (anon_sym_SEMI, 310), (anon_sym_PERCENT, 312), (aux_sym_input_decls_token1, 314),
     (aux_sym_output_decls_token1, 316), (aux_sym_in_out_decls_token1, 318),
     (aux_sym_var_decls_token1, 320), (aux_sym_temp_var_decls_token1, 322),
     (aux_sym_external_var_decls_token1, 324), (aux_sym_global_var_decls_token1, 326),
     (aux_sym_fb_decl_token4, 570), (aux_sym_method_decl_token1, 330),
     (aux_sym_prog_access_decls_token1, 332), (aux_sym_initial_step_token1, 334),
     (aux_sym_config_init_token1, 336), (aux_sym_using_directive_token1, 338),
     (aux_sym__stmt_token1, 340), (aux_sym__stmt_token2, 340), (aux_sym__stmt_token3, 340),
     (aux_sym_if_stmt_token1, 342), (aux_sym_case_stmt_token1, 344), (aux_sym_for_stmt_token1, 346),
     (aux_sym_while_stmt_token1, 348), (aux_sym_repeat_stmt_token1, 350),
     (aux_sym_raise_stmt_token1, 352), (aux_sym_try_stmt_token1, 354),
     (aux_sym_try_stmt_token2, 356), (aux_sym_catch_clause_token1, 356),
     (aux_sym_finally_clause_token1, 356), (sym_ld_rung, 358), (sym_fbd_network, 360),
     (sym_c_style_comment, 3), (sym_pascal_style_comment, 3), (sym_pragma, 3)]"

lemma ts_parse_row_168_scan: "row_scan tokens_63_2 0 ts_parse_row_168 = Some (Suc (Suc (Suc (Suc 0))))"
  unfolding ts_parse_row_168_def by simp

text \<open>Lines 73780 to 73898.\<close>

definition ts_parse_row_169 :: parse_row where
  "ts_parse_row_169 =
    [(sym_ERR_implements_multiple_times, 2978), (sym_ERR_assign_func_call, 7530),
     (sym_ERR_unexpected_this_in_path, 2372), (sym_ERR_unexpected_super_in_path, 2372),
     (sym_ERR_fb_variables_after_method, 1387), (sym_ERR_var_access_not_allowed, 3160),
     (sym_ERR_var_config_not_allowed, 3160), (sym_ERR_var_global_not_allowed, 3160),
     (sym_ERR_method_decl_in_body, 3150), (sym_extern_pragma, 7490), (sym_wasm_pragma, 3150),
     (sym_warn_pragma, 7490), (sym_allow_pragma, 3140), (sym_test_pragma, 7490),
     (sym_once_pragma, 7490), (sym_must_call_pragma, 7490), (sym_export_pragma, 7490),
     (sym_pou_pragma, 7194), (sym_direct_variable, 7675), (sym_deref_expression, 2373),
     (sym_variable, 7599), (sym_var_access, 2373), (sym_in_out_decls, 3160), (sym_var_decls, 3160),
     (sym_retain_var_decls, 3160), (sym_temp_var_decls, 3160), (sym_external_var_decls, 3160),
     (sym_global_var_decls, 2947), (sym_loc_partly_var_decl, 3160), (sym__fb_variables, 630),
     (sym_fb_input_decls, 3160), (sym_fb_output_decls, 3160), (sym_no_retain_var_decls, 3160),
     (sym_fb_body, 8660), (sym_method_decl, 632), (sym_prog_access_decls, 3043), (sym_SFC, 7970),
     (sym_SFC_network, 7612), (sym_initial_step, 7439), (sym_config_init, 3047),
     (sym_using_directive, 246), (sym_variable_access, 7530), (sym_func_call, 2961),
     (sym_stmt_list, 7970), (sym__stmt, 2024), (sym_assign, 3150), (sym_if_stmt, 3150),
     (sym_case_stmt, 3150), (sym_for_stmt, 3150), (sym_while_stmt, 3150), (sym_repeat_stmt, 3150),
     (sym_raise_stmt, 3150), (sym_try_stmt, 3150), (sym_ERR_clause_outside_try, 3150),
     (sym_begin_path_expression, 2943), (sym_invocation, 2934), (sym_any_invocation, 2935),
     (sym_this_invocation, 2641), (sym_super_invocation, 2641), (sym_super_body_invocation, 2935),
     (sym_path_expression, 2627), (sym_field_expression, 2373), (sym_index_expression, 2373),
     (sym_ladder_diagram, 7970), (sym_fb_diagram, 7970),
     (aux_sym_ERR_fb_variables_after_method_repeat1, 630), (aux_sym_func_decl_repeat1, 7194),
     (aux_sym_func_decl_repeat2, 246), (aux_sym_fb_decl_repeat2, 2978),
     (aux_sym_fb_decl_repeat3, 632), (aux_sym_SFC_repeat1, 7612), (aux_sym_stmt_list_repeat1, 2024),
     (aux_sym_ladder_diagram_repeat1, 8009), (aux_sym_fb_diagram_repeat1, 8013),
     (sym_identifier, 298), (aux_sym_ERR_implements_before_extends_token1, 486),
     (aux_sym_ERR_unexpected_this_in_path_token1, 304),
     (aux_sym_ERR_unexpected_super_in_path_token1, 306), (sym_line_comment, 3),
     (anon_sym_LBRACE, 308), (aux_sym_test_pragma_token1, 9), (aux_sym_once_pragma_token1, 11),
     (aux_sym_must_call_pragma_token1, 13), (aux_sym_export_pragma_token1, 15),
     (anon_sym_SEMI, 310), (anon_sym_PERCENT, 312), (aux_sym_input_decls_token1, 314),
     (aux_sym_output_decls_token1, 316), (aux_sym_in_out_decls_token1, 318),
     (aux_sym_var_decls_token1, 320), (aux_sym_temp_var_decls_token1, 322),
     (aux_sym_external_var_decls_token1, 324), (aux_sym_global_var_decls_token1, 326),
     (aux_sym_fb_decl_token4, 572), (aux_sym_method_decl_token1, 330),
     (aux_sym_prog_access_decls_token1, 332), (aux_sym_initial_step_token1, 334),
     (aux_sym_config_init_token1, 336), (aux_sym_using_directive_token1, 338),
     (aux_sym__stmt_token1, 340), (aux_sym__stmt_token2, 340), (aux_sym__stmt_token3, 340),
     (aux_sym_if_stmt_token1, 342), (aux_sym_case_stmt_token1, 344), (aux_sym_for_stmt_token1, 346),
     (aux_sym_while_stmt_token1, 348), (aux_sym_repeat_stmt_token1, 350),
     (aux_sym_raise_stmt_token1, 352), (aux_sym_try_stmt_token1, 354),
     (aux_sym_try_stmt_token2, 356), (aux_sym_catch_clause_token1, 356),
     (aux_sym_finally_clause_token1, 356), (sym_ld_rung, 358), (sym_fbd_network, 360),
     (sym_c_style_comment, 3), (sym_pascal_style_comment, 3), (sym_pragma, 3)]"

lemma ts_parse_row_169_scan: "row_scan tokens_63_2 0 ts_parse_row_169 = Some (Suc (Suc (Suc (Suc 0))))"
  unfolding ts_parse_row_169_def by simp

text \<open>Lines 73899 to 74017.\<close>

definition ts_parse_row_170 :: parse_row where
  "ts_parse_row_170 =
    [(sym_ERR_implements_multiple_times, 2978), (sym_ERR_assign_func_call, 7530),
     (sym_ERR_unexpected_this_in_path, 2372), (sym_ERR_unexpected_super_in_path, 2372),
     (sym_ERR_fb_variables_after_method, 1404), (sym_ERR_var_access_not_allowed, 3160),
     (sym_ERR_var_config_not_allowed, 3160), (sym_ERR_var_global_not_allowed, 3160),
     (sym_ERR_method_decl_in_body, 3150), (sym_extern_pragma, 7490), (sym_wasm_pragma, 3150),
     (sym_warn_pragma, 7490), (sym_allow_pragma, 3140), (sym_test_pragma, 7490),
     (sym_once_pragma, 7490), (sym_must_call_pragma, 7490), (sym_export_pragma, 7490),
     (sym_pou_pragma, 7194), (sym_direct_variable, 7675), (sym_deref_expression, 2373),
     (sym_variable, 7599), (sym_var_access, 2373), (sym_in_out_decls, 3160), (sym_var_decls, 3160),
     (sym_retain_var_decls, 3160), (sym_temp_var_decls, 3160), (sym_external_var_decls, 3160),
     (sym_global_var_decls, 2947), (sym_loc_partly_var_decl, 3160), (sym__fb_variables, 638),
     (sym_fb_input_decls, 3160), (sym_fb_output_decls, 3160), (sym_no_retain_var_decls, 3160),
     (sym_fb_body, 9156), (sym_method_decl, 640), (sym_prog_access_decls, 3043), (sym_SFC, 7970),
     (sym_SFC_network, 7612), (sym_initial_step, 7439), (sym_config_init, 3047),
     (sym_using_directive, 247), (sym_variable_access, 7530), (sym_func_call, 2961),
     (sym_stmt_list, 7970), (sym__stmt, 2024), (sym_assign, 3150), (sym_if_stmt, 3150),
     (sym_case_stmt, 3150), (sym_for_stmt, 3150), (sym_while_stmt, 3150), (sym_repeat_stmt, 3150),
     (sym_raise_stmt, 3150), (sym_try_stmt, 3150), (sym_ERR_clause_outside_try, 3150),
     (sym_begin_path_expression, 2943), (sym_invocation, 2934), (sym_any_invocation, 2935),
     (sym_this_invocation, 2641), (sym_super_invocation, 2641), (sym_super_body_invocation, 2935),
     (sym_path_expression, 2627), (sym_field_expression, 2373), (sym_index_expression, 2373),
     (sym_ladder_diagram, 7970), (sym_fb_diagram, 7970),
     (aux_sym_ERR_fb_variables_after_method_repeat1, 638), (aux_sym_func_decl_repeat1, 7194),
     (aux_sym_func_decl_repeat2, 247), (aux_sym_fb_decl_repeat2, 2978),
     (aux_sym_fb_decl_repeat3, 640), (aux_sym_SFC_repeat1, 7612), (aux_sym_stmt_list_repeat1, 2024),
     (aux_sym_ladder_diagram_repeat1, 8009), (aux_sym_fb_diagram_repeat1, 8013),
     (sym_identifier, 298), (aux_sym_ERR_implements_before_extends_token1, 486),
     (aux_sym_ERR_unexpected_this_in_path_token1, 304),
     (aux_sym_ERR_unexpected_super_in_path_token1, 306), (sym_line_comment, 3),
     (anon_sym_LBRACE, 308), (aux_sym_test_pragma_token1, 9), (aux_sym_once_pragma_token1, 11),
     (aux_sym_must_call_pragma_token1, 13), (aux_sym_export_pragma_token1, 15),
     (anon_sym_SEMI, 310), (anon_sym_PERCENT, 312), (aux_sym_input_decls_token1, 314),
     (aux_sym_output_decls_token1, 316), (aux_sym_in_out_decls_token1, 318),
     (aux_sym_var_decls_token1, 320), (aux_sym_temp_var_decls_token1, 322),
     (aux_sym_external_var_decls_token1, 324), (aux_sym_global_var_decls_token1, 326),
     (aux_sym_fb_decl_token4, 574), (aux_sym_method_decl_token1, 330),
     (aux_sym_prog_access_decls_token1, 332), (aux_sym_initial_step_token1, 334),
     (aux_sym_config_init_token1, 336), (aux_sym_using_directive_token1, 338),
     (aux_sym__stmt_token1, 340), (aux_sym__stmt_token2, 340), (aux_sym__stmt_token3, 340),
     (aux_sym_if_stmt_token1, 342), (aux_sym_case_stmt_token1, 344), (aux_sym_for_stmt_token1, 346),
     (aux_sym_while_stmt_token1, 348), (aux_sym_repeat_stmt_token1, 350),
     (aux_sym_raise_stmt_token1, 352), (aux_sym_try_stmt_token1, 354),
     (aux_sym_try_stmt_token2, 356), (aux_sym_catch_clause_token1, 356),
     (aux_sym_finally_clause_token1, 356), (sym_ld_rung, 358), (sym_fbd_network, 360),
     (sym_c_style_comment, 3), (sym_pascal_style_comment, 3), (sym_pragma, 3)]"

lemma ts_parse_row_170_scan: "row_scan tokens_63_2 0 ts_parse_row_170 = Some (Suc (Suc (Suc (Suc 0))))"
  unfolding ts_parse_row_170_def by simp

text \<open>Lines 74018 to 74136.\<close>

definition ts_parse_row_171 :: parse_row where
  "ts_parse_row_171 =
    [(sym_ERR_implements_multiple_times, 182), (sym_ERR_assign_func_call, 7530),
     (sym_ERR_unexpected_this_in_path, 2372), (sym_ERR_unexpected_super_in_path, 2372),
     (sym_ERR_fb_variables_after_method, 1409), (sym_ERR_var_access_not_allowed, 3160),
     (sym_ERR_var_config_not_allowed, 3160), (sym_ERR_var_global_not_allowed, 3160),
     (sym_ERR_method_decl_in_body, 3150), (sym_extern_pragma, 7490), (sym_wasm_pragma, 3150),
     (sym_warn_pragma, 7490), (sym_allow_pragma, 3140), (sym_test_pragma, 7490),
     (sym_once_pragma, 7490), (sym_must_call_pragma, 7490), (sym_export_pragma, 7490),
     (sym_pou_pragma, 7194), (sym_direct_variable, 7675), (sym_deref_expression, 2373),
     (sym_variable, 7599), (sym_var_access, 2373), (sym_in_out_decls, 3160), (sym_var_decls, 3160),
     (sym_retain_var_decls, 3160), (sym_temp_var_decls, 3160), (sym_external_var_decls, 3160),
     (sym_global_var_decls, 2947), (sym_loc_partly_var_decl, 3160), (sym__fb_variables, 641),
     (sym_fb_input_decls, 3160), (sym_fb_output_decls, 3160), (sym_no_retain_var_decls, 3160),
     (sym_fb_body, 9310), (sym_method_decl, 644), (sym_prog_access_decls, 3043), (sym_SFC, 7970),
     (sym_SFC_network, 7612), (sym_initial_step, 7439), (sym_config_init, 3047),
     (sym_using_directive, 248), (sym_variable_access, 7530), (sym_func_call, 2961),
     (sym_stmt_list, 7970), (sym__stmt, 2024), (sym_assign, 3150), (sym_if_stmt, 3150),
     (sym_case_stmt, 3150), (sym_for_stmt, 3150), (sym_while_stmt, 3150), (sym_repeat_stmt, 3150),
     (sym_raise_stmt, 3150), (sym_try_stmt, 3150), (sym_ERR_clause_outside_try, 3150),
     (sym_begin_path_expression, 2943), (sym_invocation, 2934), (sym_any_invocation, 2935),
     (sym_this_invocation, 2641), (sym_super_invocation, 2641), (sym_super_body_invocation, 2935),
     (sym_path_expression, 2627), (sym_field_expression, 2373), (sym_index_expression, 2373),
     (sym_ladder_diagram, 7970), (sym_fb_diagram, 7970),
     (aux_sym_ERR_fb_variables_after_method_repeat1, 641), (aux_sym_func_decl_repeat1, 7194),
     (aux_sym_func_decl_repeat2, 248), (aux_sym_fb_decl_repeat2, 182),
     (aux_sym_fb_decl_repeat3, 644), (aux_sym_SFC_repeat1, 7612), (aux_sym_stmt_list_repeat1, 2024),
     (aux_sym_ladder_diagram_repeat1, 8009), (aux_sym_fb_diagram_repeat1, 8013),
     (sym_identifier, 298), (aux_sym_ERR_implements_before_extends_token1, 486),
     (aux_sym_ERR_unexpected_this_in_path_token1, 304),
     (aux_sym_ERR_unexpected_super_in_path_token1, 306), (sym_line_comment, 3),
     (anon_sym_LBRACE, 308), (aux_sym_test_pragma_token1, 9), (aux_sym_once_pragma_token1, 11),
     (aux_sym_must_call_pragma_token1, 13), (aux_sym_export_pragma_token1, 15),
     (anon_sym_SEMI, 310), (anon_sym_PERCENT, 312), (aux_sym_input_decls_token1, 314),
     (aux_sym_output_decls_token1, 316), (aux_sym_in_out_decls_token1, 318),
     (aux_sym_var_decls_token1, 320), (aux_sym_temp_var_decls_token1, 322),
     (aux_sym_external_var_decls_token1, 324), (aux_sym_global_var_decls_token1, 326),
     (aux_sym_fb_decl_token4, 576), (aux_sym_method_decl_token1, 330),
     (aux_sym_prog_access_decls_token1, 332), (aux_sym_initial_step_token1, 334),
     (aux_sym_config_init_token1, 336), (aux_sym_using_directive_token1, 338),
     (aux_sym__stmt_token1, 340), (aux_sym__stmt_token2, 340), (aux_sym__stmt_token3, 340),
     (aux_sym_if_stmt_token1, 342), (aux_sym_case_stmt_token1, 344), (aux_sym_for_stmt_token1, 346),
     (aux_sym_while_stmt_token1, 348), (aux_sym_repeat_stmt_token1, 350),
     (aux_sym_raise_stmt_token1, 352), (aux_sym_try_stmt_token1, 354),
     (aux_sym_try_stmt_token2, 356), (aux_sym_catch_clause_token1, 356),
     (aux_sym_finally_clause_token1, 356), (sym_ld_rung, 358), (sym_fbd_network, 360),
     (sym_c_style_comment, 3), (sym_pascal_style_comment, 3), (sym_pragma, 3)]"

lemma ts_parse_row_171_scan: "row_scan tokens_63_2 0 ts_parse_row_171 = Some (Suc (Suc (Suc (Suc 0))))"
  unfolding ts_parse_row_171_def by simp

text \<open>Lines 74137 to 74255.\<close>

definition ts_parse_row_172 :: parse_row where
  "ts_parse_row_172 =
    [(sym_ERR_implements_multiple_times, 2978), (sym_ERR_assign_func_call, 7530),
     (sym_ERR_unexpected_this_in_path, 2372), (sym_ERR_unexpected_super_in_path, 2372),
     (sym_ERR_fb_variables_after_method, 1454), (sym_ERR_var_access_not_allowed, 3160),
     (sym_ERR_var_config_not_allowed, 3160), (sym_ERR_var_global_not_allowed, 3160),
     (sym_ERR_method_decl_in_body, 3150), (sym_extern_pragma, 7490), (sym_wasm_pragma, 3150),
     (sym_warn_pragma, 7490), (sym_allow_pragma, 3140), (sym_test_pragma, 7490),
     (sym_once_pragma, 7490), (sym_must_call_pragma, 7490), (sym_export_pragma, 7490),
     (sym_pou_pragma, 7194), (sym_direct_variable, 7675), (sym_deref_expression, 2373),
     (sym_variable, 7599), (sym_var_access, 2373), (sym_in_out_decls, 3160), (sym_var_decls, 3160),
     (sym_retain_var_decls, 3160), (sym_temp_var_decls, 3160), (sym_external_var_decls, 3160),
     (sym_global_var_decls, 2947), (sym_loc_partly_var_decl, 3160), (sym__fb_variables, 665),
     (sym_fb_input_decls, 3160), (sym_fb_output_decls, 3160), (sym_no_retain_var_decls, 3160),
     (sym_fb_body, 10068), (sym_method_decl, 667), (sym_prog_access_decls, 3043), (sym_SFC, 7970),
     (sym_SFC_network, 7612), (sym_initial_step, 7439), (sym_config_init, 3047),
     (sym_using_directive, 250), (sym_variable_access, 7530), (sym_func_call, 2961),
     (sym_stmt_list, 7970), (sym__stmt, 2024), (sym_assign, 3150), (sym_if_stmt, 3150),
     (sym_case_stmt, 3150), (sym_for_stmt, 3150), (sym_while_stmt, 3150), (sym_repeat_stmt, 3150),
     (sym_raise_stmt, 3150), (sym_try_stmt, 3150), (sym_ERR_clause_outside_try, 3150),
     (sym_begin_path_expression, 2943), (sym_invocation, 2934), (sym_any_invocation, 2935),
     (sym_this_invocation, 2641), (sym_super_invocation, 2641), (sym_super_body_invocation, 2935),
     (sym_path_expression, 2627), (sym_field_expression, 2373), (sym_index_expression, 2373),
     (sym_ladder_diagram, 7970), (sym_fb_diagram, 7970),
     (aux_sym_ERR_fb_variables_after_method_repeat1, 665), (aux_sym_func_decl_repeat1, 7194),
     (aux_sym_func_decl_repeat2, 250), (aux_sym_fb_decl_repeat2, 2978),
     (aux_sym_fb_decl_repeat3, 667), (aux_sym_SFC_repeat1, 7612), (aux_sym_stmt_list_repeat1, 2024),
     (aux_sym_ladder_diagram_repeat1, 8009), (aux_sym_fb_diagram_repeat1, 8013),
     (sym_identifier, 298), (aux_sym_ERR_implements_before_extends_token1, 486),
     (aux_sym_ERR_unexpected_this_in_path_token1, 304),
     (aux_sym_ERR_unexpected_super_in_path_token1, 306), (sym_line_comment, 3),
     (anon_sym_LBRACE, 308), (aux_sym_test_pragma_token1, 9), (aux_sym_once_pragma_token1, 11),
     (aux_sym_must_call_pragma_token1, 13), (aux_sym_export_pragma_token1, 15),
     (anon_sym_SEMI, 310), (anon_sym_PERCENT, 312), (aux_sym_input_decls_token1, 314),
     (aux_sym_output_decls_token1, 316), (aux_sym_in_out_decls_token1, 318),
     (aux_sym_var_decls_token1, 320), (aux_sym_temp_var_decls_token1, 322),
     (aux_sym_external_var_decls_token1, 324), (aux_sym_global_var_decls_token1, 326),
     (aux_sym_fb_decl_token4, 578), (aux_sym_method_decl_token1, 330),
     (aux_sym_prog_access_decls_token1, 332), (aux_sym_initial_step_token1, 334),
     (aux_sym_config_init_token1, 336), (aux_sym_using_directive_token1, 338),
     (aux_sym__stmt_token1, 340), (aux_sym__stmt_token2, 340), (aux_sym__stmt_token3, 340),
     (aux_sym_if_stmt_token1, 342), (aux_sym_case_stmt_token1, 344), (aux_sym_for_stmt_token1, 346),
     (aux_sym_while_stmt_token1, 348), (aux_sym_repeat_stmt_token1, 350),
     (aux_sym_raise_stmt_token1, 352), (aux_sym_try_stmt_token1, 354),
     (aux_sym_try_stmt_token2, 356), (aux_sym_catch_clause_token1, 356),
     (aux_sym_finally_clause_token1, 356), (sym_ld_rung, 358), (sym_fbd_network, 360),
     (sym_c_style_comment, 3), (sym_pascal_style_comment, 3), (sym_pragma, 3)]"

lemma ts_parse_row_172_scan: "row_scan tokens_63_2 0 ts_parse_row_172 = Some (Suc (Suc (Suc (Suc 0))))"
  unfolding ts_parse_row_172_def by simp

text \<open>Lines 74256 to 74374.\<close>

definition ts_parse_row_173 :: parse_row where
  "ts_parse_row_173 =
    [(sym_ERR_implements_multiple_times, 2978), (sym_ERR_assign_func_call, 7530),
     (sym_ERR_unexpected_this_in_path, 2372), (sym_ERR_unexpected_super_in_path, 2372),
     (sym_ERR_fb_variables_after_method, 1476), (sym_ERR_var_access_not_allowed, 3160),
     (sym_ERR_var_config_not_allowed, 3160), (sym_ERR_var_global_not_allowed, 3160),
     (sym_ERR_method_decl_in_body, 3150), (sym_extern_pragma, 7490), (sym_wasm_pragma, 3150),
     (sym_warn_pragma, 7490), (sym_allow_pragma, 3140), (sym_test_pragma, 7490),
     (sym_once_pragma, 7490), (sym_must_call_pragma, 7490), (sym_export_pragma, 7490),
     (sym_pou_pragma, 7194), (sym_direct_variable, 7675), (sym_deref_expression, 2373),
     (sym_variable, 7599), (sym_var_access, 2373), (sym_in_out_decls, 3160), (sym_var_decls, 3160),
     (sym_retain_var_decls, 3160), (sym_temp_var_decls, 3160), (sym_external_var_decls, 3160),
     (sym_global_var_decls, 2947), (sym_loc_partly_var_decl, 3160), (sym__fb_variables, 675),
     (sym_fb_input_decls, 3160), (sym_fb_output_decls, 3160), (sym_no_retain_var_decls, 3160),
     (sym_fb_body, 8637), (sym_method_decl, 677), (sym_prog_access_decls, 3043), (sym_SFC, 7970),
     (sym_SFC_network, 7612), (sym_initial_step, 7439), (sym_config_init, 3047),
     (sym_using_directive, 252), (sym_variable_access, 7530), (sym_func_call, 2961),
     (sym_stmt_list, 7970), (sym__stmt, 2024), (sym_assign, 3150), (sym_if_stmt, 3150),
     (sym_case_stmt, 3150), (sym_for_stmt, 3150), (sym_while_stmt, 3150), (sym_repeat_stmt, 3150),
     (sym_raise_stmt, 3150), (sym_try_stmt, 3150), (sym_ERR_clause_outside_try, 3150),
     (sym_begin_path_expression, 2943), (sym_invocation, 2934), (sym_any_invocation, 2935),
     (sym_this_invocation, 2641), (sym_super_invocation, 2641), (sym_super_body_invocation, 2935),
     (sym_path_expression, 2627), (sym_field_expression, 2373), (sym_index_expression, 2373),
     (sym_ladder_diagram, 7970), (sym_fb_diagram, 7970),
     (aux_sym_ERR_fb_variables_after_method_repeat1, 675), (aux_sym_func_decl_repeat1, 7194),
     (aux_sym_func_decl_repeat2, 252), (aux_sym_fb_decl_repeat2, 2978),
     (aux_sym_fb_decl_repeat3, 677), (aux_sym_SFC_repeat1, 7612), (aux_sym_stmt_list_repeat1, 2024),
     (aux_sym_ladder_diagram_repeat1, 8009), (aux_sym_fb_diagram_repeat1, 8013),
     (sym_identifier, 298), (aux_sym_ERR_implements_before_extends_token1, 486),
     (aux_sym_ERR_unexpected_this_in_path_token1, 304),
     (aux_sym_ERR_unexpected_super_in_path_token1, 306), (sym_line_comment, 3),
     (anon_sym_LBRACE, 308), (aux_sym_test_pragma_token1, 9), (aux_sym_once_pragma_token1, 11),
     (aux_sym_must_call_pragma_token1, 13), (aux_sym_export_pragma_token1, 15),
     (anon_sym_SEMI, 310), (anon_sym_PERCENT, 312), (aux_sym_input_decls_token1, 314),
     (aux_sym_output_decls_token1, 316), (aux_sym_in_out_decls_token1, 318),
     (aux_sym_var_decls_token1, 320), (aux_sym_temp_var_decls_token1, 322),
     (aux_sym_external_var_decls_token1, 324), (aux_sym_global_var_decls_token1, 326),
     (aux_sym_fb_decl_token4, 580), (aux_sym_method_decl_token1, 330),
     (aux_sym_prog_access_decls_token1, 332), (aux_sym_initial_step_token1, 334),
     (aux_sym_config_init_token1, 336), (aux_sym_using_directive_token1, 338),
     (aux_sym__stmt_token1, 340), (aux_sym__stmt_token2, 340), (aux_sym__stmt_token3, 340),
     (aux_sym_if_stmt_token1, 342), (aux_sym_case_stmt_token1, 344), (aux_sym_for_stmt_token1, 346),
     (aux_sym_while_stmt_token1, 348), (aux_sym_repeat_stmt_token1, 350),
     (aux_sym_raise_stmt_token1, 352), (aux_sym_try_stmt_token1, 354),
     (aux_sym_try_stmt_token2, 356), (aux_sym_catch_clause_token1, 356),
     (aux_sym_finally_clause_token1, 356), (sym_ld_rung, 358), (sym_fbd_network, 360),
     (sym_c_style_comment, 3), (sym_pascal_style_comment, 3), (sym_pragma, 3)]"

lemma ts_parse_row_173_scan: "row_scan tokens_63_2 0 ts_parse_row_173 = Some (Suc (Suc (Suc (Suc 0))))"
  unfolding ts_parse_row_173_def by simp

text \<open>Lines 74375 to 74493.\<close>

definition ts_parse_row_174 :: parse_row where
  "ts_parse_row_174 =
    [(sym_ERR_implements_multiple_times, 184), (sym_ERR_assign_func_call, 7530),
     (sym_ERR_unexpected_this_in_path, 2372), (sym_ERR_unexpected_super_in_path, 2372),
     (sym_ERR_fb_variables_after_method, 1482), (sym_ERR_var_access_not_allowed, 3160),
     (sym_ERR_var_config_not_allowed, 3160), (sym_ERR_var_global_not_allowed, 3160),
     (sym_ERR_method_decl_in_body, 3150), (sym_extern_pragma, 7490), (sym_wasm_pragma, 3150),
     (sym_warn_pragma, 7490), (sym_allow_pragma, 3140), (sym_test_pragma, 7490),
     (sym_once_pragma, 7490), (sym_must_call_pragma, 7490), (sym_export_pragma, 7490),
     (sym_pou_pragma, 7194), (sym_direct_variable, 7675), (sym_deref_expression, 2373),
     (sym_variable, 7599), (sym_var_access, 2373), (sym_in_out_decls, 3160), (sym_var_decls, 3160),
     (sym_retain_var_decls, 3160), (sym_temp_var_decls, 3160), (sym_external_var_decls, 3160),
     (sym_global_var_decls, 2947), (sym_loc_partly_var_decl, 3160), (sym__fb_variables, 678),
     (sym_fb_input_decls, 3160), (sym_fb_output_decls, 3160), (sym_no_retain_var_decls, 3160),
     (sym_fb_body, 8681), (sym_method_decl, 681), (sym_prog_access_decls, 3043), (sym_SFC, 7970),
     (sym_SFC_network, 7612), (sym_initial_step, 7439), (sym_config_init, 3047),
     (sym_using_directive, 253), (sym_variable_access, 7530), (sym_func_call, 2961),
     (sym_stmt_list, 7970), (sym__stmt, 2024), (sym_assign, 3150), (sym_if_stmt, 3150),
     (sym_case_stmt, 3150), (sym_for_stmt, 3150), (sym_while_stmt, 3150), (sym_repeat_stmt, 3150),
     (sym_raise_stmt, 3150), (sym_try_stmt, 3150), (sym_ERR_clause_outside_try, 3150),
     (sym_begin_path_expression, 2943), (sym_invocation, 2934), (sym_any_invocation, 2935),
     (sym_this_invocation, 2641), (sym_super_invocation, 2641), (sym_super_body_invocation, 2935),
     (sym_path_expression, 2627), (sym_field_expression, 2373), (sym_index_expression, 2373),
     (sym_ladder_diagram, 7970), (sym_fb_diagram, 7970),
     (aux_sym_ERR_fb_variables_after_method_repeat1, 678), (aux_sym_func_decl_repeat1, 7194),
     (aux_sym_func_decl_repeat2, 253), (aux_sym_fb_decl_repeat2, 184),
     (aux_sym_fb_decl_repeat3, 681), (aux_sym_SFC_repeat1, 7612), (aux_sym_stmt_list_repeat1, 2024),
     (aux_sym_ladder_diagram_repeat1, 8009), (aux_sym_fb_diagram_repeat1, 8013),
     (sym_identifier, 298), (aux_sym_ERR_implements_before_extends_token1, 486),
     (aux_sym_ERR_unexpected_this_in_path_token1, 304),
     (aux_sym_ERR_unexpected_super_in_path_token1, 306), (sym_line_comment, 3),
     (anon_sym_LBRACE, 308), (aux_sym_test_pragma_token1, 9), (aux_sym_once_pragma_token1, 11),
     (aux_sym_must_call_pragma_token1, 13), (aux_sym_export_pragma_token1, 15),
     (anon_sym_SEMI, 310), (anon_sym_PERCENT, 312), (aux_sym_input_decls_token1, 314),
     (aux_sym_output_decls_token1, 316), (aux_sym_in_out_decls_token1, 318),
     (aux_sym_var_decls_token1, 320), (aux_sym_temp_var_decls_token1, 322),
     (aux_sym_external_var_decls_token1, 324), (aux_sym_global_var_decls_token1, 326),
     (aux_sym_fb_decl_token4, 582), (aux_sym_method_decl_token1, 330),
     (aux_sym_prog_access_decls_token1, 332), (aux_sym_initial_step_token1, 334),
     (aux_sym_config_init_token1, 336), (aux_sym_using_directive_token1, 338),
     (aux_sym__stmt_token1, 340), (aux_sym__stmt_token2, 340), (aux_sym__stmt_token3, 340),
     (aux_sym_if_stmt_token1, 342), (aux_sym_case_stmt_token1, 344), (aux_sym_for_stmt_token1, 346),
     (aux_sym_while_stmt_token1, 348), (aux_sym_repeat_stmt_token1, 350),
     (aux_sym_raise_stmt_token1, 352), (aux_sym_try_stmt_token1, 354),
     (aux_sym_try_stmt_token2, 356), (aux_sym_catch_clause_token1, 356),
     (aux_sym_finally_clause_token1, 356), (sym_ld_rung, 358), (sym_fbd_network, 360),
     (sym_c_style_comment, 3), (sym_pascal_style_comment, 3), (sym_pragma, 3)]"

lemma ts_parse_row_174_scan: "row_scan tokens_63_2 0 ts_parse_row_174 = Some (Suc (Suc (Suc (Suc 0))))"
  unfolding ts_parse_row_174_def by simp

text \<open>Lines 74494 to 74612.\<close>

definition ts_parse_row_175 :: parse_row where
  "ts_parse_row_175 =
    [(sym_ERR_implements_multiple_times, 185), (sym_ERR_assign_func_call, 7530),
     (sym_ERR_unexpected_this_in_path, 2372), (sym_ERR_unexpected_super_in_path, 2372),
     (sym_ERR_fb_variables_after_method, 1501), (sym_ERR_var_access_not_allowed, 3160),
     (sym_ERR_var_config_not_allowed, 3160), (sym_ERR_var_global_not_allowed, 3160),
     (sym_ERR_method_decl_in_body, 3150), (sym_extern_pragma, 7490), (sym_wasm_pragma, 3150),
     (sym_warn_pragma, 7490), (sym_allow_pragma, 3140), (sym_test_pragma, 7490),
     (sym_once_pragma, 7490), (sym_must_call_pragma, 7490), (sym_export_pragma, 7490),
     (sym_pou_pragma, 7194), (sym_direct_variable, 7675), (sym_deref_expression, 2373),
     (sym_variable, 7599), (sym_var_access, 2373), (sym_in_out_decls, 3160), (sym_var_decls, 3160),
     (sym_retain_var_decls, 3160), (sym_temp_var_decls, 3160), (sym_external_var_decls, 3160),
     (sym_global_var_decls, 2947), (sym_loc_partly_var_decl, 3160), (sym__fb_variables, 690),
     (sym_fb_input_decls, 3160), (sym_fb_output_decls, 3160), (sym_no_retain_var_decls, 3160),
     (sym_fb_body, 8790), (sym_method_decl, 693), (sym_prog_access_decls, 3043), (sym_SFC, 7970),
     (sym_SFC_network, 7612), (sym_initial_step, 7439), (sym_config_init, 3047),
     (sym_using_directive, 255), (sym_variable_access, 7530), (sym_func_call, 2961),
     (sym_stmt_list, 7970), (sym__stmt, 2024), (sym_assign, 3150), (sym_if_stmt, 3150),
     (sym_case_stmt, 3150), (sym_for_stmt, 3150), (sym_while_stmt, 3150), (sym_repeat_stmt, 3150),
     (sym_raise_stmt, 3150), (sym_try_stmt, 3150), (sym_ERR_clause_outside_try, 3150),
     (sym_begin_path_expression, 2943), (sym_invocation, 2934), (sym_any_invocation, 2935),
     (sym_this_invocation, 2641), (sym_super_invocation, 2641), (sym_super_body_invocation, 2935),
     (sym_path_expression, 2627), (sym_field_expression, 2373), (sym_index_expression, 2373),
     (sym_ladder_diagram, 7970), (sym_fb_diagram, 7970),
     (aux_sym_ERR_fb_variables_after_method_repeat1, 690), (aux_sym_func_decl_repeat1, 7194),
     (aux_sym_func_decl_repeat2, 255), (aux_sym_fb_decl_repeat2, 185),
     (aux_sym_fb_decl_repeat3, 693), (aux_sym_SFC_repeat1, 7612), (aux_sym_stmt_list_repeat1, 2024),
     (aux_sym_ladder_diagram_repeat1, 8009), (aux_sym_fb_diagram_repeat1, 8013),
     (sym_identifier, 298), (aux_sym_ERR_implements_before_extends_token1, 486),
     (aux_sym_ERR_unexpected_this_in_path_token1, 304),
     (aux_sym_ERR_unexpected_super_in_path_token1, 306), (sym_line_comment, 3),
     (anon_sym_LBRACE, 308), (aux_sym_test_pragma_token1, 9), (aux_sym_once_pragma_token1, 11),
     (aux_sym_must_call_pragma_token1, 13), (aux_sym_export_pragma_token1, 15),
     (anon_sym_SEMI, 310), (anon_sym_PERCENT, 312), (aux_sym_input_decls_token1, 314),
     (aux_sym_output_decls_token1, 316), (aux_sym_in_out_decls_token1, 318),
     (aux_sym_var_decls_token1, 320), (aux_sym_temp_var_decls_token1, 322),
     (aux_sym_external_var_decls_token1, 324), (aux_sym_global_var_decls_token1, 326),
     (aux_sym_fb_decl_token4, 584), (aux_sym_method_decl_token1, 330),
     (aux_sym_prog_access_decls_token1, 332), (aux_sym_initial_step_token1, 334),
     (aux_sym_config_init_token1, 336), (aux_sym_using_directive_token1, 338),
     (aux_sym__stmt_token1, 340), (aux_sym__stmt_token2, 340), (aux_sym__stmt_token3, 340),
     (aux_sym_if_stmt_token1, 342), (aux_sym_case_stmt_token1, 344), (aux_sym_for_stmt_token1, 346),
     (aux_sym_while_stmt_token1, 348), (aux_sym_repeat_stmt_token1, 350),
     (aux_sym_raise_stmt_token1, 352), (aux_sym_try_stmt_token1, 354),
     (aux_sym_try_stmt_token2, 356), (aux_sym_catch_clause_token1, 356),
     (aux_sym_finally_clause_token1, 356), (sym_ld_rung, 358), (sym_fbd_network, 360),
     (sym_c_style_comment, 3), (sym_pascal_style_comment, 3), (sym_pragma, 3)]"

lemma ts_parse_row_175_scan: "row_scan tokens_63_2 0 ts_parse_row_175 = Some (Suc (Suc (Suc (Suc 0))))"
  unfolding ts_parse_row_175_def by simp

text \<open>Lines 74613 to 74731.\<close>

definition ts_parse_row_176 :: parse_row where
  "ts_parse_row_176 =
    [(sym_ERR_implements_multiple_times, 2978), (sym_ERR_assign_func_call, 7530),
     (sym_ERR_unexpected_this_in_path, 2372), (sym_ERR_unexpected_super_in_path, 2372),
     (sym_ERR_fb_variables_after_method, 1508), (sym_ERR_var_access_not_allowed, 3160),
     (sym_ERR_var_config_not_allowed, 3160), (sym_ERR_var_global_not_allowed, 3160),
     (sym_ERR_method_decl_in_body, 3150), (sym_extern_pragma, 7490), (sym_wasm_pragma, 3150),
     (sym_warn_pragma, 7490), (sym_allow_pragma, 3140), (sym_test_pragma, 7490),
     (sym_once_pragma, 7490), (sym_must_call_pragma, 7490), (sym_export_pragma, 7490),
     (sym_pou_pragma, 7194), (sym_direct_variable, 7675), (sym_deref_expression, 2373),
     (sym_variable, 7599), (sym_var_access, 2373), (sym_in_out_decls, 3160), (sym_var_decls, 3160),
     (sym_retain_var_decls, 3160), (sym_temp_var_decls, 3160), (sym_external_var_decls, 3160),
     (sym_global_var_decls, 2947), (sym_loc_partly_var_decl, 3160), (sym__fb_variables, 699),
     (sym_fb_input_decls, 3160), (sym_fb_output_decls, 3160), (sym_no_retain_var_decls, 3160),
     (sym_fb_body, 8823), (sym_method_decl, 701), (sym_prog_access_decls, 3043), (sym_SFC, 7970),
     (sym_SFC_network, 7612), (sym_initial_step, 7439), (sym_config_init, 3047),
     (sym_using_directive, 209), (sym_variable_access, 7530), (sym_func_call, 2961),
     (sym_stmt_list, 7970), (sym__stmt, 2024), (sym_assign, 3150), (sym_if_stmt, 3150),
     (sym_case_stmt, 3150), (sym_for_stmt, 3150), (sym_while_stmt, 3150), (sym_repeat_stmt, 3150),
     (sym_raise_stmt, 3150), (sym_try_stmt, 3150), (sym_ERR_clause_outside_try, 3150),
     (sym_begin_path_expression, 2943), (sym_invocation, 2934), (sym_any_invocation, 2935),
     (sym_this_invocation, 2641), (sym_super_invocation, 2641), (sym_super_body_invocation, 2935),
     (sym_path_expression, 2627), (sym_field_expression, 2373), (sym_index_expression, 2373),
     (sym_ladder_diagram, 7970), (sym_fb_diagram, 7970),
     (aux_sym_ERR_fb_variables_after_method_repeat1, 699), (aux_sym_func_decl_repeat1, 7194),
     (aux_sym_func_decl_repeat2, 209), (aux_sym_fb_decl_repeat2, 2978),
     (aux_sym_fb_decl_repeat3, 701), (aux_sym_SFC_repeat1, 7612), (aux_sym_stmt_list_repeat1, 2024),
     (aux_sym_ladder_diagram_repeat1, 8009), (aux_sym_fb_diagram_repeat1, 8013),
     (sym_identifier, 298), (aux_sym_ERR_implements_before_extends_token1, 486),
     (aux_sym_ERR_unexpected_this_in_path_token1, 304),
     (aux_sym_ERR_unexpected_super_in_path_token1, 306), (sym_line_comment, 3),
     (anon_sym_LBRACE, 308), (aux_sym_test_pragma_token1, 9), (aux_sym_once_pragma_token1, 11),
     (aux_sym_must_call_pragma_token1, 13), (aux_sym_export_pragma_token1, 15),
     (anon_sym_SEMI, 310), (anon_sym_PERCENT, 312), (aux_sym_input_decls_token1, 314),
     (aux_sym_output_decls_token1, 316), (aux_sym_in_out_decls_token1, 318),
     (aux_sym_var_decls_token1, 320), (aux_sym_temp_var_decls_token1, 322),
     (aux_sym_external_var_decls_token1, 324), (aux_sym_global_var_decls_token1, 326),
     (aux_sym_fb_decl_token4, 586), (aux_sym_method_decl_token1, 330),
     (aux_sym_prog_access_decls_token1, 332), (aux_sym_initial_step_token1, 334),
     (aux_sym_config_init_token1, 336), (aux_sym_using_directive_token1, 338),
     (aux_sym__stmt_token1, 340), (aux_sym__stmt_token2, 340), (aux_sym__stmt_token3, 340),
     (aux_sym_if_stmt_token1, 342), (aux_sym_case_stmt_token1, 344), (aux_sym_for_stmt_token1, 346),
     (aux_sym_while_stmt_token1, 348), (aux_sym_repeat_stmt_token1, 350),
     (aux_sym_raise_stmt_token1, 352), (aux_sym_try_stmt_token1, 354),
     (aux_sym_try_stmt_token2, 356), (aux_sym_catch_clause_token1, 356),
     (aux_sym_finally_clause_token1, 356), (sym_ld_rung, 358), (sym_fbd_network, 360),
     (sym_c_style_comment, 3), (sym_pascal_style_comment, 3), (sym_pragma, 3)]"

lemma ts_parse_row_176_scan: "row_scan tokens_63_2 0 ts_parse_row_176 = Some (Suc (Suc (Suc (Suc 0))))"
  unfolding ts_parse_row_176_def by simp

text \<open>Lines 74732 to 74850.\<close>

definition ts_parse_row_177 :: parse_row where
  "ts_parse_row_177 =
    [(sym_ERR_implements_multiple_times, 2978), (sym_ERR_assign_func_call, 7530),
     (sym_ERR_unexpected_this_in_path, 2372), (sym_ERR_unexpected_super_in_path, 2372),
     (sym_ERR_fb_variables_after_method, 1513), (sym_ERR_var_access_not_allowed, 3160),
     (sym_ERR_var_config_not_allowed, 3160), (sym_ERR_var_global_not_allowed, 3160),
     (sym_ERR_method_decl_in_body, 3150), (sym_extern_pragma, 7490), (sym_wasm_pragma, 3150),
     (sym_warn_pragma, 7490), (sym_allow_pragma, 3140), (sym_test_pragma, 7490),
     (sym_once_pragma, 7490), (sym_must_call_pragma, 7490), (sym_export_pragma, 7490),
     (sym_pou_pragma, 7194), (sym_direct_variable, 7675), (sym_deref_expression, 2373),
     (sym_variable, 7599), (sym_var_access, 2373), (sym_in_out_decls, 3160), (sym_var_decls, 3160),
     (sym_retain_var_decls, 3160), (sym_temp_var_decls, 3160), (sym_external_var_decls, 3160),
     (sym_global_var_decls, 2947), (sym_loc_partly_var_decl, 3160), (sym__fb_variables, 705),
     (sym_fb_input_decls, 3160), (sym_fb_output_decls, 3160), (sym_no_retain_var_decls, 3160),
     (sym_fb_body, 8861), (sym_method_decl, 707), (sym_prog_access_decls, 3043), (sym_SFC, 7970),
     (sym_SFC_network, 7612), (sym_initial_step, 7439), (sym_config_init, 3047),
     (sym_using_directive, 259), (sym_variable_access, 7530), (sym_func_call, 2961),
     (sym_stmt_list, 7970), (sym__stmt, 2024), (sym_assign, 3150), (sym_if_stmt, 3150),
     (sym_case_stmt, 3150), (sym_for_stmt, 3150), (sym_while_stmt, 3150), (sym_repeat_stmt, 3150),
     (sym_raise_stmt, 3150), (sym_try_stmt, 3150), (sym_ERR_clause_outside_try, 3150),
     (sym_begin_path_expression, 2943), (sym_invocation, 2934), (sym_any_invocation, 2935),
     (sym_this_invocation, 2641), (sym_super_invocation, 2641), (sym_super_body_invocation, 2935),
     (sym_path_expression, 2627), (sym_field_expression, 2373), (sym_index_expression, 2373),
     (sym_ladder_diagram, 7970), (sym_fb_diagram, 7970),
     (aux_sym_ERR_fb_variables_after_method_repeat1, 705), (aux_sym_func_decl_repeat1, 7194),
     (aux_sym_func_decl_repeat2, 259), (aux_sym_fb_decl_repeat2, 2978),
     (aux_sym_fb_decl_repeat3, 707), (aux_sym_SFC_repeat1, 7612), (aux_sym_stmt_list_repeat1, 2024),
     (aux_sym_ladder_diagram_repeat1, 8009), (aux_sym_fb_diagram_repeat1, 8013),
     (sym_identifier, 298), (aux_sym_ERR_implements_before_extends_token1, 486),
     (aux_sym_ERR_unexpected_this_in_path_token1, 304),
     (aux_sym_ERR_unexpected_super_in_path_token1, 306), (sym_line_comment, 3),
     (anon_sym_LBRACE, 308), (aux_sym_test_pragma_token1, 9), (aux_sym_once_pragma_token1, 11),
     (aux_sym_must_call_pragma_token1, 13), (aux_sym_export_pragma_token1, 15),
     (anon_sym_SEMI, 310), (anon_sym_PERCENT, 312), (aux_sym_input_decls_token1, 314),
     (aux_sym_output_decls_token1, 316), (aux_sym_in_out_decls_token1, 318),
     (aux_sym_var_decls_token1, 320), (aux_sym_temp_var_decls_token1, 322),
     (aux_sym_external_var_decls_token1, 324), (aux_sym_global_var_decls_token1, 326),
     (aux_sym_fb_decl_token4, 588), (aux_sym_method_decl_token1, 330),
     (aux_sym_prog_access_decls_token1, 332), (aux_sym_initial_step_token1, 334),
     (aux_sym_config_init_token1, 336), (aux_sym_using_directive_token1, 338),
     (aux_sym__stmt_token1, 340), (aux_sym__stmt_token2, 340), (aux_sym__stmt_token3, 340),
     (aux_sym_if_stmt_token1, 342), (aux_sym_case_stmt_token1, 344), (aux_sym_for_stmt_token1, 346),
     (aux_sym_while_stmt_token1, 348), (aux_sym_repeat_stmt_token1, 350),
     (aux_sym_raise_stmt_token1, 352), (aux_sym_try_stmt_token1, 354),
     (aux_sym_try_stmt_token2, 356), (aux_sym_catch_clause_token1, 356),
     (aux_sym_finally_clause_token1, 356), (sym_ld_rung, 358), (sym_fbd_network, 360),
     (sym_c_style_comment, 3), (sym_pascal_style_comment, 3), (sym_pragma, 3)]"

lemma ts_parse_row_177_scan: "row_scan tokens_63_2 0 ts_parse_row_177 = Some (Suc (Suc (Suc (Suc 0))))"
  unfolding ts_parse_row_177_def by simp

text \<open>Lines 74851 to 74969.\<close>

definition ts_parse_row_178 :: parse_row where
  "ts_parse_row_178 =
    [(sym_ERR_implements_multiple_times, 2978), (sym_ERR_assign_func_call, 7530),
     (sym_ERR_unexpected_this_in_path, 2372), (sym_ERR_unexpected_super_in_path, 2372),
     (sym_ERR_fb_variables_after_method, 1530), (sym_ERR_var_access_not_allowed, 3160),
     (sym_ERR_var_config_not_allowed, 3160), (sym_ERR_var_global_not_allowed, 3160),
     (sym_ERR_method_decl_in_body, 3150), (sym_extern_pragma, 7490), (sym_wasm_pragma, 3150),
     (sym_warn_pragma, 7490), (sym_allow_pragma, 3140), (sym_test_pragma, 7490),
     (sym_once_pragma, 7490), (sym_must_call_pragma, 7490), (sym_export_pragma, 7490),
     (sym_pou_pragma, 7194), (sym_direct_variable, 7675), (sym_deref_expression, 2373),
     (sym_variable, 7599), (sym_var_access, 2373), (sym_in_out_decls, 3160), (sym_var_decls, 3160),
     (sym_retain_var_decls, 3160), (sym_temp_var_decls, 3160), (sym_external_var_decls, 3160),
     (sym_global_var_decls, 2947), (sym_loc_partly_var_decl, 3160), (sym__fb_variables, 716),
     (sym_fb_input_decls, 3160), (sym_fb_output_decls, 3160), (sym_no_retain_var_decls, 3160),
     (sym_fb_body, 9010), (sym_method_decl, 718), (sym_prog_access_decls, 3043), (sym_SFC, 7970),
     (sym_SFC_network, 7612), (sym_initial_step, 7439), (sym_config_init, 3047),
     (sym_using_directive, 260), (sym_variable_access, 7530), (sym_func_call, 2961),
     (sym_stmt_list, 7970), (sym__stmt, 2024), (sym_assign, 3150), (sym_if_stmt, 3150),
     (sym_case_stmt, 3150), (sym_for_stmt, 3150), (sym_while_stmt, 3150), (sym_repeat_stmt, 3150),
     (sym_raise_stmt, 3150), (sym_try_stmt, 3150), (sym_ERR_clause_outside_try, 3150),
     (sym_begin_path_expression, 2943), (sym_invocation, 2934), (sym_any_invocation, 2935),
     (sym_this_invocation, 2641), (sym_super_invocation, 2641), (sym_super_body_invocation, 2935),
     (sym_path_expression, 2627), (sym_field_expression, 2373), (sym_index_expression, 2373),
     (sym_ladder_diagram, 7970), (sym_fb_diagram, 7970),
     (aux_sym_ERR_fb_variables_after_method_repeat1, 716), (aux_sym_func_decl_repeat1, 7194),
     (aux_sym_func_decl_repeat2, 260), (aux_sym_fb_decl_repeat2, 2978),
     (aux_sym_fb_decl_repeat3, 718), (aux_sym_SFC_repeat1, 7612), (aux_sym_stmt_list_repeat1, 2024),
     (aux_sym_ladder_diagram_repeat1, 8009), (aux_sym_fb_diagram_repeat1, 8013),
     (sym_identifier, 298), (aux_sym_ERR_implements_before_extends_token1, 486),
     (aux_sym_ERR_unexpected_this_in_path_token1, 304),
     (aux_sym_ERR_unexpected_super_in_path_token1, 306), (sym_line_comment, 3),
     (anon_sym_LBRACE, 308), (aux_sym_test_pragma_token1, 9), (aux_sym_once_pragma_token1, 11),
     (aux_sym_must_call_pragma_token1, 13), (aux_sym_export_pragma_token1, 15),
     (anon_sym_SEMI, 310), (anon_sym_PERCENT, 312), (aux_sym_input_decls_token1, 314),
     (aux_sym_output_decls_token1, 316), (aux_sym_in_out_decls_token1, 318),
     (aux_sym_var_decls_token1, 320), (aux_sym_temp_var_decls_token1, 322),
     (aux_sym_external_var_decls_token1, 324), (aux_sym_global_var_decls_token1, 326),
     (aux_sym_fb_decl_token4, 590), (aux_sym_method_decl_token1, 330),
     (aux_sym_prog_access_decls_token1, 332), (aux_sym_initial_step_token1, 334),
     (aux_sym_config_init_token1, 336), (aux_sym_using_directive_token1, 338),
     (aux_sym__stmt_token1, 340), (aux_sym__stmt_token2, 340), (aux_sym__stmt_token3, 340),
     (aux_sym_if_stmt_token1, 342), (aux_sym_case_stmt_token1, 344), (aux_sym_for_stmt_token1, 346),
     (aux_sym_while_stmt_token1, 348), (aux_sym_repeat_stmt_token1, 350),
     (aux_sym_raise_stmt_token1, 352), (aux_sym_try_stmt_token1, 354),
     (aux_sym_try_stmt_token2, 356), (aux_sym_catch_clause_token1, 356),
     (aux_sym_finally_clause_token1, 356), (sym_ld_rung, 358), (sym_fbd_network, 360),
     (sym_c_style_comment, 3), (sym_pascal_style_comment, 3), (sym_pragma, 3)]"

lemma ts_parse_row_178_scan: "row_scan tokens_63_2 0 ts_parse_row_178 = Some (Suc (Suc (Suc (Suc 0))))"
  unfolding ts_parse_row_178_def by simp

text \<open>Lines 74970 to 75088.\<close>

definition ts_parse_row_179 :: parse_row where
  "ts_parse_row_179 =
    [(sym_ERR_implements_multiple_times, 2978), (sym_ERR_assign_func_call, 7530),
     (sym_ERR_unexpected_this_in_path, 2372), (sym_ERR_unexpected_super_in_path, 2372),
     (sym_ERR_fb_variables_after_method, 1543), (sym_ERR_var_access_not_allowed, 3160),
     (sym_ERR_var_config_not_allowed, 3160), (sym_ERR_var_global_not_allowed, 3160),
     (sym_ERR_method_decl_in_body, 3150), (sym_extern_pragma, 7490), (sym_wasm_pragma, 3150),
     (sym_warn_pragma, 7490), (sym_allow_pragma, 3140), (sym_test_pragma, 7490),
     (sym_once_pragma, 7490), (sym_must_call_pragma, 7490), (sym_export_pragma, 7490),
     (sym_pou_pragma, 7194), (sym_direct_variable, 7675), (sym_deref_expression, 2373),
     (sym_variable, 7599), (sym_var_access, 2373), (sym_in_out_decls, 3160), (sym_var_decls, 3160),
     (sym_retain_var_decls, 3160), (sym_temp_var_decls, 3160), (sym_external_var_decls, 3160),
     (sym_global_var_decls, 2947), (sym_loc_partly_var_decl, 3160), (sym__fb_variables, 724),
     (sym_fb_input_decls, 3160), (sym_fb_output_decls, 3160), (sym_no_retain_var_decls, 3160),
     (sym_fb_body, 9135), (sym_method_decl, 726), (sym_prog_access_decls, 3043), (sym_SFC, 7970),
     (sym_SFC_network, 7612), (sym_initial_step, 7439), (sym_config_init, 3047),
     (sym_using_directive, 261), (sym_variable_access, 7530), (sym_func_call, 2961),
     (sym_stmt_list, 7970), (sym__stmt, 2024), (sym_assign, 3150), (sym_if_stmt, 3150),
     (sym_case_stmt, 3150), (sym_for_stmt, 3150), (sym_while_stmt, 3150), (sym_repeat_stmt, 3150),
     (sym_raise_stmt, 3150), (sym_try_stmt, 3150), (sym_ERR_clause_outside_try, 3150),
     (sym_begin_path_expression, 2943), (sym_invocation, 2934), (sym_any_invocation, 2935),
     (sym_this_invocation, 2641), (sym_super_invocation, 2641), (sym_super_body_invocation, 2935),
     (sym_path_expression, 2627), (sym_field_expression, 2373), (sym_index_expression, 2373),
     (sym_ladder_diagram, 7970), (sym_fb_diagram, 7970),
     (aux_sym_ERR_fb_variables_after_method_repeat1, 724), (aux_sym_func_decl_repeat1, 7194),
     (aux_sym_func_decl_repeat2, 261), (aux_sym_fb_decl_repeat2, 2978),
     (aux_sym_fb_decl_repeat3, 726), (aux_sym_SFC_repeat1, 7612), (aux_sym_stmt_list_repeat1, 2024),
     (aux_sym_ladder_diagram_repeat1, 8009), (aux_sym_fb_diagram_repeat1, 8013),
     (sym_identifier, 298), (aux_sym_ERR_implements_before_extends_token1, 486),
     (aux_sym_ERR_unexpected_this_in_path_token1, 304),
     (aux_sym_ERR_unexpected_super_in_path_token1, 306), (sym_line_comment, 3),
     (anon_sym_LBRACE, 308), (aux_sym_test_pragma_token1, 9), (aux_sym_once_pragma_token1, 11),
     (aux_sym_must_call_pragma_token1, 13), (aux_sym_export_pragma_token1, 15),
     (anon_sym_SEMI, 310), (anon_sym_PERCENT, 312), (aux_sym_input_decls_token1, 314),
     (aux_sym_output_decls_token1, 316), (aux_sym_in_out_decls_token1, 318),
     (aux_sym_var_decls_token1, 320), (aux_sym_temp_var_decls_token1, 322),
     (aux_sym_external_var_decls_token1, 324), (aux_sym_global_var_decls_token1, 326),
     (aux_sym_fb_decl_token4, 592), (aux_sym_method_decl_token1, 330),
     (aux_sym_prog_access_decls_token1, 332), (aux_sym_initial_step_token1, 334),
     (aux_sym_config_init_token1, 336), (aux_sym_using_directive_token1, 338),
     (aux_sym__stmt_token1, 340), (aux_sym__stmt_token2, 340), (aux_sym__stmt_token3, 340),
     (aux_sym_if_stmt_token1, 342), (aux_sym_case_stmt_token1, 344), (aux_sym_for_stmt_token1, 346),
     (aux_sym_while_stmt_token1, 348), (aux_sym_repeat_stmt_token1, 350),
     (aux_sym_raise_stmt_token1, 352), (aux_sym_try_stmt_token1, 354),
     (aux_sym_try_stmt_token2, 356), (aux_sym_catch_clause_token1, 356),
     (aux_sym_finally_clause_token1, 356), (sym_ld_rung, 358), (sym_fbd_network, 360),
     (sym_c_style_comment, 3), (sym_pascal_style_comment, 3), (sym_pragma, 3)]"

lemma ts_parse_row_179_scan: "row_scan tokens_63_2 0 ts_parse_row_179 = Some (Suc (Suc (Suc (Suc 0))))"
  unfolding ts_parse_row_179_def by simp

text \<open>Lines 75089 to 75207.\<close>

definition ts_parse_row_180 :: parse_row where
  "ts_parse_row_180 =
    [(sym_ERR_implements_multiple_times, 187), (sym_ERR_assign_func_call, 7530),
     (sym_ERR_unexpected_this_in_path, 2372), (sym_ERR_unexpected_super_in_path, 2372),
     (sym_ERR_fb_variables_after_method, 1547), (sym_ERR_var_access_not_allowed, 3160),
     (sym_ERR_var_config_not_allowed, 3160), (sym_ERR_var_global_not_allowed, 3160),
     (sym_ERR_method_decl_in_body, 3150), (sym_extern_pragma, 7490), (sym_wasm_pragma, 3150),
     (sym_warn_pragma, 7490), (sym_allow_pragma, 3140), (sym_test_pragma, 7490),
     (sym_once_pragma, 7490), (sym_must_call_pragma, 7490), (sym_export_pragma, 7490),
     (sym_pou_pragma, 7194), (sym_direct_variable, 7675), (sym_deref_expression, 2373),
     (sym_variable, 7599), (sym_var_access, 2373), (sym_in_out_decls, 3160), (sym_var_decls, 3160),
     (sym_retain_var_decls, 3160), (sym_temp_var_decls, 3160), (sym_external_var_decls, 3160),
     (sym_global_var_decls, 2947), (sym_loc_partly_var_decl, 3160), (sym__fb_variables, 727),
     (sym_fb_input_decls, 3160), (sym_fb_output_decls, 3160), (sym_no_retain_var_decls, 3160),
     (sym_fb_body, 9177), (sym_method_decl, 730), (sym_prog_access_decls, 3043), (sym_SFC, 7970),
     (sym_SFC_network, 7612), (sym_initial_step, 7439), (sym_config_init, 3047),
     (sym_using_directive, 262), (sym_variable_access, 7530), (sym_func_call, 2961),
     (sym_stmt_list, 7970), (sym__stmt, 2024), (sym_assign, 3150), (sym_if_stmt, 3150),
     (sym_case_stmt, 3150), (sym_for_stmt, 3150), (sym_while_stmt, 3150), (sym_repeat_stmt, 3150),
     (sym_raise_stmt, 3150), (sym_try_stmt, 3150), (sym_ERR_clause_outside_try, 3150),
     (sym_begin_path_expression, 2943), (sym_invocation, 2934), (sym_any_invocation, 2935),
     (sym_this_invocation, 2641), (sym_super_invocation, 2641), (sym_super_body_invocation, 2935),
     (sym_path_expression, 2627), (sym_field_expression, 2373), (sym_index_expression, 2373),
     (sym_ladder_diagram, 7970), (sym_fb_diagram, 7970),
     (aux_sym_ERR_fb_variables_after_method_repeat1, 727), (aux_sym_func_decl_repeat1, 7194),
     (aux_sym_func_decl_repeat2, 262), (aux_sym_fb_decl_repeat2, 187),
     (aux_sym_fb_decl_repeat3, 730), (aux_sym_SFC_repeat1, 7612), (aux_sym_stmt_list_repeat1, 2024),
     (aux_sym_ladder_diagram_repeat1, 8009), (aux_sym_fb_diagram_repeat1, 8013),
     (sym_identifier, 298), (aux_sym_ERR_implements_before_extends_token1, 486),
     (aux_sym_ERR_unexpected_this_in_path_token1, 304),
     (aux_sym_ERR_unexpected_super_in_path_token1, 306), (sym_line_comment, 3),
     (anon_sym_LBRACE, 308), (aux_sym_test_pragma_token1, 9), (aux_sym_once_pragma_token1, 11),
     (aux_sym_must_call_pragma_token1, 13), (aux_sym_export_pragma_token1, 15),
     (anon_sym_SEMI, 310), (anon_sym_PERCENT, 312), (aux_sym_input_decls_token1, 314),
     (aux_sym_output_decls_token1, 316), (aux_sym_in_out_decls_token1, 318),
     (aux_sym_var_decls_token1, 320), (aux_sym_temp_var_decls_token1, 322),
     (aux_sym_external_var_decls_token1, 324), (aux_sym_global_var_decls_token1, 326),
     (aux_sym_fb_decl_token4, 594), (aux_sym_method_decl_token1, 330),
     (aux_sym_prog_access_decls_token1, 332), (aux_sym_initial_step_token1, 334),
     (aux_sym_config_init_token1, 336), (aux_sym_using_directive_token1, 338),
     (aux_sym__stmt_token1, 340), (aux_sym__stmt_token2, 340), (aux_sym__stmt_token3, 340),
     (aux_sym_if_stmt_token1, 342), (aux_sym_case_stmt_token1, 344), (aux_sym_for_stmt_token1, 346),
     (aux_sym_while_stmt_token1, 348), (aux_sym_repeat_stmt_token1, 350),
     (aux_sym_raise_stmt_token1, 352), (aux_sym_try_stmt_token1, 354),
     (aux_sym_try_stmt_token2, 356), (aux_sym_catch_clause_token1, 356),
     (aux_sym_finally_clause_token1, 356), (sym_ld_rung, 358), (sym_fbd_network, 360),
     (sym_c_style_comment, 3), (sym_pascal_style_comment, 3), (sym_pragma, 3)]"

lemma ts_parse_row_180_scan: "row_scan tokens_63_2 0 ts_parse_row_180 = Some (Suc (Suc (Suc (Suc 0))))"
  unfolding ts_parse_row_180_def by simp

text \<open>Lines 75208 to 75326.\<close>

definition ts_parse_row_181 :: parse_row where
  "ts_parse_row_181 =
    [(sym_ERR_implements_multiple_times, 2978), (sym_ERR_assign_func_call, 7530),
     (sym_ERR_unexpected_this_in_path, 2372), (sym_ERR_unexpected_super_in_path, 2372),
     (sym_ERR_fb_variables_after_method, 1544), (sym_ERR_var_access_not_allowed, 3160),
     (sym_ERR_var_config_not_allowed, 3160), (sym_ERR_var_global_not_allowed, 3160),
     (sym_ERR_method_decl_in_body, 3150), (sym_extern_pragma, 7490), (sym_wasm_pragma, 3150),
     (sym_warn_pragma, 7490), (sym_allow_pragma, 3140), (sym_test_pragma, 7490),
     (sym_once_pragma, 7490), (sym_must_call_pragma, 7490), (sym_export_pragma, 7490),
     (sym_pou_pragma, 7194), (sym_direct_variable, 7675), (sym_deref_expression, 2373),
     (sym_variable, 7599), (sym_var_access, 2373), (sym_in_out_decls, 3160), (sym_var_decls, 3160),
     (sym_retain_var_decls, 3160), (sym_temp_var_decls, 3160), (sym_external_var_decls, 3160),
     (sym_global_var_decls, 2947), (sym_loc_partly_var_decl, 3160), (sym__fb_variables, 700),
     (sym_fb_input_decls, 3160), (sym_fb_output_decls, 3160), (sym_no_retain_var_decls, 3160),
     (sym_fb_body, 10348), (sym_method_decl, 778), (sym_prog_access_decls, 3043), (sym_SFC, 7970),
     (sym_SFC_network, 7612), (sym_initial_step, 7439), (sym_config_init, 3047),
     (sym_using_directive, 242), (sym_variable_access, 7530), (sym_func_call, 2961),
     (sym_stmt_list, 7970), (sym__stmt, 2024), (sym_assign, 3150), (sym_if_stmt, 3150),
     (sym_case_stmt, 3150), (sym_for_stmt, 3150), (sym_while_stmt, 3150), (sym_repeat_stmt, 3150),
     (sym_raise_stmt, 3150), (sym_try_stmt, 3150), (sym_ERR_clause_outside_try, 3150),
     (sym_begin_path_expression, 2943), (sym_invocation, 2934), (sym_any_invocation, 2935),
     (sym_this_invocation, 2641), (sym_super_invocation, 2641), (sym_super_body_invocation, 2935),
     (sym_path_expression, 2627), (sym_field_expression, 2373), (sym_index_expression, 2373),
     (sym_ladder_diagram, 7970), (sym_fb_diagram, 7970),
     (aux_sym_ERR_fb_variables_after_method_repeat1, 700), (aux_sym_func_decl_repeat1, 7194),
     (aux_sym_func_decl_repeat2, 242), (aux_sym_fb_decl_repeat2, 2978),
     (aux_sym_fb_decl_repeat3, 778), (aux_sym_SFC_repeat1, 7612), (aux_sym_stmt_list_repeat1, 2024),
     (aux_sym_ladder_diagram_repeat1, 8009), (aux_sym_fb_diagram_repeat1, 8013),
     (sym_identifier, 298), (aux_sym_ERR_implements_before_extends_token1, 486),
     (aux_sym_ERR_unexpected_this_in_path_token1, 304),
     (aux_sym_ERR_unexpected_super_in_path_token1, 306), (sym_line_comment, 3),
     (anon_sym_LBRACE, 308), (aux_sym_test_pragma_token1, 9), (aux_sym_once_pragma_token1, 11),
     (aux_sym_must_call_pragma_token1, 13), (aux_sym_export_pragma_token1, 15),
     (anon_sym_SEMI, 310), (anon_sym_PERCENT, 312), (aux_sym_input_decls_token1, 314),
     (aux_sym_output_decls_token1, 316), (aux_sym_in_out_decls_token1, 318),
     (aux_sym_var_decls_token1, 320), (aux_sym_temp_var_decls_token1, 322),
     (aux_sym_external_var_decls_token1, 324), (aux_sym_global_var_decls_token1, 326),
     (aux_sym_fb_decl_token4, 444), (aux_sym_method_decl_token1, 330),
     (aux_sym_prog_access_decls_token1, 332), (aux_sym_initial_step_token1, 334),
     (aux_sym_config_init_token1, 336), (aux_sym_using_directive_token1, 338),
     (aux_sym__stmt_token1, 340), (aux_sym__stmt_token2, 340), (aux_sym__stmt_token3, 340),
     (aux_sym_if_stmt_token1, 342), (aux_sym_case_stmt_token1, 344), (aux_sym_for_stmt_token1, 346),
     (aux_sym_while_stmt_token1, 348), (aux_sym_repeat_stmt_token1, 350),
     (aux_sym_raise_stmt_token1, 352), (aux_sym_try_stmt_token1, 354),
     (aux_sym_try_stmt_token2, 356), (aux_sym_catch_clause_token1, 356),
     (aux_sym_finally_clause_token1, 356), (sym_ld_rung, 358), (sym_fbd_network, 360),
     (sym_c_style_comment, 3), (sym_pascal_style_comment, 3), (sym_pragma, 3)]"

lemma ts_parse_row_181_scan: "row_scan tokens_63_2 0 ts_parse_row_181 = Some (Suc (Suc (Suc (Suc 0))))"
  unfolding ts_parse_row_181_def by simp

text \<open>Lines 75327 to 75445.\<close>

definition ts_parse_row_182 :: parse_row where
  "ts_parse_row_182 =
    [(sym_ERR_implements_multiple_times, 2978), (sym_ERR_assign_func_call, 7530),
     (sym_ERR_unexpected_this_in_path, 2372), (sym_ERR_unexpected_super_in_path, 2372),
     (sym_ERR_fb_variables_after_method, 1591), (sym_ERR_var_access_not_allowed, 3160),
     (sym_ERR_var_config_not_allowed, 3160), (sym_ERR_var_global_not_allowed, 3160),
     (sym_ERR_method_decl_in_body, 3150), (sym_extern_pragma, 7490), (sym_wasm_pragma, 3150),
     (sym_warn_pragma, 7490), (sym_allow_pragma, 3140), (sym_test_pragma, 7490),
     (sym_once_pragma, 7490), (sym_must_call_pragma, 7490), (sym_export_pragma, 7490),
     (sym_pou_pragma, 7194), (sym_direct_variable, 7675), (sym_deref_expression, 2373),
     (sym_variable, 7599), (sym_var_access, 2373), (sym_in_out_decls, 3160), (sym_var_decls, 3160),
     (sym_retain_var_decls, 3160), (sym_temp_var_decls, 3160), (sym_external_var_decls, 3160),
     (sym_global_var_decls, 2947), (sym_loc_partly_var_decl, 3160), (sym__fb_variables, 751),
     (sym_fb_input_decls, 3160), (sym_fb_output_decls, 3160), (sym_no_retain_var_decls, 3160),
     (sym_fb_body, 9526), (sym_method_decl, 753), (sym_prog_access_decls, 3043), (sym_SFC, 7970),
     (sym_SFC_network, 7612), (sym_initial_step, 7439), (sym_config_init, 3047),
     (sym_using_directive, 264), (sym_variable_access, 7530), (sym_func_call, 2961),
     (sym_stmt_list, 7970), (sym__stmt, 2024), (sym_assign, 3150), (sym_if_stmt, 3150),
     (sym_case_stmt, 3150), (sym_for_stmt, 3150), (sym_while_stmt, 3150), (sym_repeat_stmt, 3150),
     (sym_raise_stmt, 3150), (sym_try_stmt, 3150), (sym_ERR_clause_outside_try, 3150),
     (sym_begin_path_expression, 2943), (sym_invocation, 2934), (sym_any_invocation, 2935),
     (sym_this_invocation, 2641), (sym_super_invocation, 2641), (sym_super_body_invocation, 2935),
     (sym_path_expression, 2627), (sym_field_expression, 2373), (sym_index_expression, 2373),
     (sym_ladder_diagram, 7970), (sym_fb_diagram, 7970),
     (aux_sym_ERR_fb_variables_after_method_repeat1, 751), (aux_sym_func_decl_repeat1, 7194),
     (aux_sym_func_decl_repeat2, 264), (aux_sym_fb_decl_repeat2, 2978),
     (aux_sym_fb_decl_repeat3, 753), (aux_sym_SFC_repeat1, 7612), (aux_sym_stmt_list_repeat1, 2024),
     (aux_sym_ladder_diagram_repeat1, 8009), (aux_sym_fb_diagram_repeat1, 8013),
     (sym_identifier, 298), (aux_sym_ERR_implements_before_extends_token1, 486),
     (aux_sym_ERR_unexpected_this_in_path_token1, 304),
     (aux_sym_ERR_unexpected_super_in_path_token1, 306), (sym_line_comment, 3),
     (anon_sym_LBRACE, 308), (aux_sym_test_pragma_token1, 9), (aux_sym_once_pragma_token1, 11),
     (aux_sym_must_call_pragma_token1, 13), (aux_sym_export_pragma_token1, 15),
     (anon_sym_SEMI, 310), (anon_sym_PERCENT, 312), (aux_sym_input_decls_token1, 314),
     (aux_sym_output_decls_token1, 316), (aux_sym_in_out_decls_token1, 318),
     (aux_sym_var_decls_token1, 320), (aux_sym_temp_var_decls_token1, 322),
     (aux_sym_external_var_decls_token1, 324), (aux_sym_global_var_decls_token1, 326),
     (aux_sym_fb_decl_token4, 596), (aux_sym_method_decl_token1, 330),
     (aux_sym_prog_access_decls_token1, 332), (aux_sym_initial_step_token1, 334),
     (aux_sym_config_init_token1, 336), (aux_sym_using_directive_token1, 338),
     (aux_sym__stmt_token1, 340), (aux_sym__stmt_token2, 340), (aux_sym__stmt_token3, 340),
     (aux_sym_if_stmt_token1, 342), (aux_sym_case_stmt_token1, 344), (aux_sym_for_stmt_token1, 346),
     (aux_sym_while_stmt_token1, 348), (aux_sym_repeat_stmt_token1, 350),
     (aux_sym_raise_stmt_token1, 352), (aux_sym_try_stmt_token1, 354),
     (aux_sym_try_stmt_token2, 356), (aux_sym_catch_clause_token1, 356),
     (aux_sym_finally_clause_token1, 356), (sym_ld_rung, 358), (sym_fbd_network, 360),
     (sym_c_style_comment, 3), (sym_pascal_style_comment, 3), (sym_pragma, 3)]"

lemma ts_parse_row_182_scan: "row_scan tokens_63_2 0 ts_parse_row_182 = Some (Suc (Suc (Suc (Suc 0))))"
  unfolding ts_parse_row_182_def by simp

text \<open>Lines 75446 to 75564.\<close>

definition ts_parse_row_183 :: parse_row where
  "ts_parse_row_183 =
    [(sym_ERR_implements_multiple_times, 192), (sym_ERR_assign_func_call, 7530),
     (sym_ERR_unexpected_this_in_path, 2372), (sym_ERR_unexpected_super_in_path, 2372),
     (sym_ERR_fb_variables_after_method, 1567), (sym_ERR_var_access_not_allowed, 3160),
     (sym_ERR_var_config_not_allowed, 3160), (sym_ERR_var_global_not_allowed, 3160),
     (sym_ERR_method_decl_in_body, 3150), (sym_extern_pragma, 7490), (sym_wasm_pragma, 3150),
     (sym_warn_pragma, 7490), (sym_allow_pragma, 3140), (sym_test_pragma, 7490),
     (sym_once_pragma, 7490), (sym_must_call_pragma, 7490), (sym_export_pragma, 7490),
     (sym_pou_pragma, 7194), (sym_direct_variable, 7675), (sym_deref_expression, 2373),
     (sym_variable, 7599), (sym_var_access, 2373), (sym_in_out_decls, 3160), (sym_var_decls, 3160),
     (sym_retain_var_decls, 3160), (sym_temp_var_decls, 3160), (sym_external_var_decls, 3160),
     (sym_global_var_decls, 2947), (sym_loc_partly_var_decl, 3160), (sym__fb_variables, 805),
     (sym_fb_input_decls, 3160), (sym_fb_output_decls, 3160), (sym_no_retain_var_decls, 3160),
     (sym_fb_body, 8744), (sym_method_decl, 854), (sym_prog_access_decls, 3043), (sym_SFC, 7970),
     (sym_SFC_network, 7612), (sym_initial_step, 7439), (sym_config_init, 3047),
     (sym_using_directive, 214), (sym_variable_access, 7530), (sym_func_call, 2961),
     (sym_stmt_list, 7970), (sym__stmt, 2024), (sym_assign, 3150), (sym_if_stmt, 3150),
     (sym_case_stmt, 3150), (sym_for_stmt, 3150), (sym_while_stmt, 3150), (sym_repeat_stmt, 3150),
     (sym_raise_stmt, 3150), (sym_try_stmt, 3150), (sym_ERR_clause_outside_try, 3150),
     (sym_begin_path_expression, 2943), (sym_invocation, 2934), (sym_any_invocation, 2935),
     (sym_this_invocation, 2641), (sym_super_invocation, 2641), (sym_super_body_invocation, 2935),
     (sym_path_expression, 2627), (sym_field_expression, 2373), (sym_index_expression, 2373),
     (sym_ladder_diagram, 7970), (sym_fb_diagram, 7970),
     (aux_sym_ERR_fb_variables_after_method_repeat1, 805), (aux_sym_func_decl_repeat1, 7194),
     (aux_sym_func_decl_repeat2, 214), (aux_sym_fb_decl_repeat2, 192),
     (aux_sym_fb_decl_repeat3, 854), (aux_sym_SFC_repeat1, 7612), (aux_sym_stmt_list_repeat1, 2024),
     (aux_sym_ladder_diagram_repeat1, 8009), (aux_sym_fb_diagram_repeat1, 8013),
     (sym_identifier, 298), (aux_sym_ERR_implements_before_extends_token1, 486),
     (aux_sym_ERR_unexpected_this_in_path_token1, 304),
     (aux_sym_ERR_unexpected_super_in_path_token1, 306), (sym_line_comment, 3),
     (anon_sym_LBRACE, 308), (aux_sym_test_pragma_token1, 9), (aux_sym_once_pragma_token1, 11),
     (aux_sym_must_call_pragma_token1, 13), (aux_sym_export_pragma_token1, 15),
     (anon_sym_SEMI, 310), (anon_sym_PERCENT, 312), (aux_sym_input_decls_token1, 314),
     (aux_sym_output_decls_token1, 316), (aux_sym_in_out_decls_token1, 318),
     (aux_sym_var_decls_token1, 320), (aux_sym_temp_var_decls_token1, 322),
     (aux_sym_external_var_decls_token1, 324), (aux_sym_global_var_decls_token1, 326),
     (aux_sym_fb_decl_token4, 598), (aux_sym_method_decl_token1, 330),
     (aux_sym_prog_access_decls_token1, 332), (aux_sym_initial_step_token1, 334),
     (aux_sym_config_init_token1, 336), (aux_sym_using_directive_token1, 338),
     (aux_sym__stmt_token1, 340), (aux_sym__stmt_token2, 340), (aux_sym__stmt_token3, 340),
     (aux_sym_if_stmt_token1, 342), (aux_sym_case_stmt_token1, 344), (aux_sym_for_stmt_token1, 346),
     (aux_sym_while_stmt_token1, 348), (aux_sym_repeat_stmt_token1, 350),
     (aux_sym_raise_stmt_token1, 352), (aux_sym_try_stmt_token1, 354),
     (aux_sym_try_stmt_token2, 356), (aux_sym_catch_clause_token1, 356),
     (aux_sym_finally_clause_token1, 356), (sym_ld_rung, 358), (sym_fbd_network, 360),
     (sym_c_style_comment, 3), (sym_pascal_style_comment, 3), (sym_pragma, 3)]"

lemma ts_parse_row_183_scan: "row_scan tokens_63_2 0 ts_parse_row_183 = Some (Suc (Suc (Suc (Suc 0))))"
  unfolding ts_parse_row_183_def by simp

text \<open>Lines 75565 to 75683.\<close>

definition ts_parse_row_184 :: parse_row where
  "ts_parse_row_184 =
    [(sym_ERR_implements_multiple_times, 2978), (sym_ERR_assign_func_call, 7530),
     (sym_ERR_unexpected_this_in_path, 2372), (sym_ERR_unexpected_super_in_path, 2372),
     (sym_ERR_fb_variables_after_method, 1642), (sym_ERR_var_access_not_allowed, 3160),
     (sym_ERR_var_config_not_allowed, 3160), (sym_ERR_var_global_not_allowed, 3160),
     (sym_ERR_method_decl_in_body, 3150), (sym_extern_pragma, 7490), (sym_wasm_pragma, 3150),
     (sym_warn_pragma, 7490), (sym_allow_pragma, 3140), (sym_test_pragma, 7490),
     (sym_once_pragma, 7490), (sym_must_call_pragma, 7490), (sym_export_pragma, 7490),
     (sym_pou_pragma, 7194), (sym_direct_variable, 7675), (sym_deref_expression, 2373),
     (sym_variable, 7599), (sym_var_access, 2373), (sym_in_out_decls, 3160), (sym_var_decls, 3160),
     (sym_retain_var_decls, 3160), (sym_temp_var_decls, 3160), (sym_external_var_decls, 3160),
     (sym_global_var_decls, 2947), (sym_loc_partly_var_decl, 3160), (sym__fb_variables, 769),
     (sym_fb_input_decls, 3160), (sym_fb_output_decls, 3160), (sym_no_retain_var_decls, 3160),
     (sym_fb_body, 10543), (sym_method_decl, 771), (sym_prog_access_decls, 3043), (sym_SFC, 7970),
     (sym_SFC_network, 7612), (sym_initial_step, 7439), (sym_config_init, 3047),
     (sym_using_directive, 265), (sym_variable_access, 7530), (sym_func_call, 2961),
     (sym_stmt_list, 7970), (sym__stmt, 2024), (sym_assign, 3150), (sym_if_stmt, 3150),
     (sym_case_stmt, 3150), (sym_for_stmt, 3150), (sym_while_stmt, 3150), (sym_repeat_stmt, 3150),
     (sym_raise_stmt, 3150), (sym_try_stmt, 3150), (sym_ERR_clause_outside_try, 3150),
     (sym_begin_path_expression, 2943), (sym_invocation, 2934), (sym_any_invocation, 2935),
     (sym_this_invocation, 2641), (sym_super_invocation, 2641), (sym_super_body_invocation, 2935),
     (sym_path_expression, 2627), (sym_field_expression, 2373), (sym_index_expression, 2373),
     (sym_ladder_diagram, 7970), (sym_fb_diagram, 7970),
     (aux_sym_ERR_fb_variables_after_method_repeat1, 769), (aux_sym_func_decl_repeat1, 7194),
     (aux_sym_func_decl_repeat2, 265), (aux_sym_fb_decl_repeat2, 2978),
     (aux_sym_fb_decl_repeat3, 771), (aux_sym_SFC_repeat1, 7612), (aux_sym_stmt_list_repeat1, 2024),
     (aux_sym_ladder_diagram_repeat1, 8009), (aux_sym_fb_diagram_repeat1, 8013),
     (sym_identifier, 298), (aux_sym_ERR_implements_before_extends_token1, 486),
     (aux_sym_ERR_unexpected_this_in_path_token1, 304),
     (aux_sym_ERR_unexpected_super_in_path_token1, 306), (sym_line_comment, 3),
     (anon_sym_LBRACE, 308), (aux_sym_test_pragma_token1, 9), (aux_sym_once_pragma_token1, 11),
     (aux_sym_must_call_pragma_token1, 13), (aux_sym_export_pragma_token1, 15),
     (anon_sym_SEMI, 310), (anon_sym_PERCENT, 312), (aux_sym_input_decls_token1, 314),
     (aux_sym_output_decls_token1, 316), (aux_sym_in_out_decls_token1, 318),
     (aux_sym_var_decls_token1, 320), (aux_sym_temp_var_decls_token1, 322),
     (aux_sym_external_var_decls_token1, 324), (aux_sym_global_var_decls_token1, 326),
     (aux_sym_fb_decl_token4, 600), (aux_sym_method_decl_token1, 330),
     (aux_sym_prog_access_decls_token1, 332), (aux_sym_initial_step_token1, 334),
     (aux_sym_config_init_token1, 336), (aux_sym_using_directive_token1, 338),
     (aux_sym__stmt_token1, 340), (aux_sym__stmt_token2, 340), (aux_sym__stmt_token3, 340),
     (aux_sym_if_stmt_token1, 342), (aux_sym_case_stmt_token1, 344), (aux_sym_for_stmt_token1, 346),
     (aux_sym_while_stmt_token1, 348), (aux_sym_repeat_stmt_token1, 350),
     (aux_sym_raise_stmt_token1, 352), (aux_sym_try_stmt_token1, 354),
     (aux_sym_try_stmt_token2, 356), (aux_sym_catch_clause_token1, 356),
     (aux_sym_finally_clause_token1, 356), (sym_ld_rung, 358), (sym_fbd_network, 360),
     (sym_c_style_comment, 3), (sym_pascal_style_comment, 3), (sym_pragma, 3)]"

lemma ts_parse_row_184_scan: "row_scan tokens_63_2 0 ts_parse_row_184 = Some (Suc (Suc (Suc (Suc 0))))"
  unfolding ts_parse_row_184_def by simp

text \<open>Lines 75684 to 75802.\<close>

definition ts_parse_row_185 :: parse_row where
  "ts_parse_row_185 =
    [(sym_ERR_implements_multiple_times, 2978), (sym_ERR_assign_func_call, 7530),
     (sym_ERR_unexpected_this_in_path, 2372), (sym_ERR_unexpected_super_in_path, 2372),
     (sym_ERR_fb_variables_after_method, 1658), (sym_ERR_var_access_not_allowed, 3160),
     (sym_ERR_var_config_not_allowed, 3160), (sym_ERR_var_global_not_allowed, 3160),
     (sym_ERR_method_decl_in_body, 3150), (sym_extern_pragma, 7490), (sym_wasm_pragma, 3150),
     (sym_warn_pragma, 7490), (sym_allow_pragma, 3140), (sym_test_pragma, 7490),
     (sym_once_pragma, 7490), (sym_must_call_pragma, 7490), (sym_export_pragma, 7490),
     (sym_pou_pragma, 7194), (sym_direct_variable, 7675), (sym_deref_expression, 2373),
     (sym_variable, 7599), (sym_var_access, 2373), (sym_in_out_decls, 3160), (sym_var_decls, 3160),
     (sym_retain_var_decls, 3160), (sym_temp_var_decls, 3160), (sym_external_var_decls, 3160),
     (sym_global_var_decls, 2947), (sym_loc_partly_var_decl, 3160), (sym__fb_variables, 777),
     (sym_fb_input_decls, 3160), (sym_fb_output_decls, 3160), (sym_no_retain_var_decls, 3160),
     (sym_fb_body, 8566), (sym_method_decl, 779), (sym_prog_access_decls, 3043), (sym_SFC, 7970),
     (sym_SFC_network, 7612), (sym_initial_step, 7439), (sym_config_init, 3047),
     (sym_using_directive, 266), (sym_variable_access, 7530), (sym_func_call, 2961),
     (sym_stmt_list, 7970), (sym__stmt, 2024), (sym_assign, 3150), (sym_if_stmt, 3150),
     (sym_case_stmt, 3150), (sym_for_stmt, 3150), (sym_while_stmt, 3150), (sym_repeat_stmt, 3150),
     (sym_raise_stmt, 3150), (sym_try_stmt, 3150), (sym_ERR_clause_outside_try, 3150),
     (sym_begin_path_expression, 2943), (sym_invocation, 2934), (sym_any_invocation, 2935),
     (sym_this_invocation, 2641), (sym_super_invocation, 2641), (sym_super_body_invocation, 2935),
     (sym_path_expression, 2627), (sym_field_expression, 2373), (sym_index_expression, 2373),
     (sym_ladder_diagram, 7970), (sym_fb_diagram, 7970),
     (aux_sym_ERR_fb_variables_after_method_repeat1, 777), (aux_sym_func_decl_repeat1, 7194),
     (aux_sym_func_decl_repeat2, 266), (aux_sym_fb_decl_repeat2, 2978),
     (aux_sym_fb_decl_repeat3, 779), (aux_sym_SFC_repeat1, 7612), (aux_sym_stmt_list_repeat1, 2024),
     (aux_sym_ladder_diagram_repeat1, 8009), (aux_sym_fb_diagram_repeat1, 8013),
     (sym_identifier, 298), (aux_sym_ERR_implements_before_extends_token1, 486),
     (aux_sym_ERR_unexpected_this_in_path_token1, 304),
     (aux_sym_ERR_unexpected_super_in_path_token1, 306), (sym_line_comment, 3),
     (anon_sym_LBRACE, 308), (aux_sym_test_pragma_token1, 9), (aux_sym_once_pragma_token1, 11),
     (aux_sym_must_call_pragma_token1, 13), (aux_sym_export_pragma_token1, 15),
     (anon_sym_SEMI, 310), (anon_sym_PERCENT, 312), (aux_sym_input_decls_token1, 314),
     (aux_sym_output_decls_token1, 316), (aux_sym_in_out_decls_token1, 318),
     (aux_sym_var_decls_token1, 320), (aux_sym_temp_var_decls_token1, 322),
     (aux_sym_external_var_decls_token1, 324), (aux_sym_global_var_decls_token1, 326),
     (aux_sym_fb_decl_token4, 602), (aux_sym_method_decl_token1, 330),
     (aux_sym_prog_access_decls_token1, 332), (aux_sym_initial_step_token1, 334),
     (aux_sym_config_init_token1, 336), (aux_sym_using_directive_token1, 338),
     (aux_sym__stmt_token1, 340), (aux_sym__stmt_token2, 340), (aux_sym__stmt_token3, 340),
     (aux_sym_if_stmt_token1, 342), (aux_sym_case_stmt_token1, 344), (aux_sym_for_stmt_token1, 346),
     (aux_sym_while_stmt_token1, 348), (aux_sym_repeat_stmt_token1, 350),
     (aux_sym_raise_stmt_token1, 352), (aux_sym_try_stmt_token1, 354),
     (aux_sym_try_stmt_token2, 356), (aux_sym_catch_clause_token1, 356),
     (aux_sym_finally_clause_token1, 356), (sym_ld_rung, 358), (sym_fbd_network, 360),
     (sym_c_style_comment, 3), (sym_pascal_style_comment, 3), (sym_pragma, 3)]"

lemma ts_parse_row_185_scan: "row_scan tokens_63_2 0 ts_parse_row_185 = Some (Suc (Suc (Suc (Suc 0))))"
  unfolding ts_parse_row_185_def by simp

text \<open>Lines 75803 to 75921.\<close>

definition ts_parse_row_186 :: parse_row where
  "ts_parse_row_186 =
    [(sym_ERR_implements_multiple_times, 188), (sym_ERR_assign_func_call, 7530),
     (sym_ERR_unexpected_this_in_path, 2372), (sym_ERR_unexpected_super_in_path, 2372),
     (sym_ERR_fb_variables_after_method, 1663), (sym_ERR_var_access_not_allowed, 3160),
     (sym_ERR_var_config_not_allowed, 3160), (sym_ERR_var_global_not_allowed, 3160),
     (sym_ERR_method_decl_in_body, 3150), (sym_extern_pragma, 7490), (sym_wasm_pragma, 3150),
     (sym_warn_pragma, 7490), (sym_allow_pragma, 3140), (sym_test_pragma, 7490),
     (sym_once_pragma, 7490), (sym_must_call_pragma, 7490), (sym_export_pragma, 7490),
     (sym_pou_pragma, 7194), (sym_direct_variable, 7675), (sym_deref_expression, 2373),
     (sym_variable, 7599), (sym_var_access, 2373), (sym_in_out_decls, 3160), (sym_var_decls, 3160),
     (sym_retain_var_decls, 3160), (sym_temp_var_decls, 3160), (sym_external_var_decls, 3160),
     (sym_global_var_decls, 2947), (sym_loc_partly_var_decl, 3160), (sym__fb_variables, 780),
     (sym_fb_input_decls, 3160), (sym_fb_output_decls, 3160), (sym_no_retain_var_decls, 3160),
     (sym_fb_body, 9309), (sym_method_decl, 783), (sym_prog_access_decls, 3043), (sym_SFC, 7970),
     (sym_SFC_network, 7612), (sym_initial_step, 7439), (sym_config_init, 3047),
     (sym_using_directive, 267), (sym_variable_access, 7530), (sym_func_call, 2961),
     (sym_stmt_list, 7970), (sym__stmt, 2024), (sym_assign, 3150), (sym_if_stmt, 3150),
     (sym_case_stmt, 3150), (sym_for_stmt, 3150), (sym_while_stmt, 3150), (sym_repeat_stmt, 3150),
     (sym_raise_stmt, 3150), (sym_try_stmt, 3150), (sym_ERR_clause_outside_try, 3150),
     (sym_begin_path_expression, 2943), (sym_invocation, 2934), (sym_any_invocation, 2935),
     (sym_this_invocation, 2641), (sym_super_invocation, 2641), (sym_super_body_invocation, 2935),
     (sym_path_expression, 2627), (sym_field_expression, 2373), (sym_index_expression, 2373),
     (sym_ladder_diagram, 7970), (sym_fb_diagram, 7970),
     (aux_sym_ERR_fb_variables_after_method_repeat1, 780), (aux_sym_func_decl_repeat1, 7194),
     (aux_sym_func_decl_repeat2, 267), (aux_sym_fb_decl_repeat2, 188),
     (aux_sym_fb_decl_repeat3, 783), (aux_sym_SFC_repeat1, 7612), (aux_sym_stmt_list_repeat1, 2024),
     (aux_sym_ladder_diagram_repeat1, 8009), (aux_sym_fb_diagram_repeat1, 8013),
     (sym_identifier, 298), (aux_sym_ERR_implements_before_extends_token1, 486),
     (aux_sym_ERR_unexpected_this_in_path_token1, 304),
     (aux_sym_ERR_unexpected_super_in_path_token1, 306), (sym_line_comment, 3),
     (anon_sym_LBRACE, 308), (aux_sym_test_pragma_token1, 9), (aux_sym_once_pragma_token1, 11),
     (aux_sym_must_call_pragma_token1, 13), (aux_sym_export_pragma_token1, 15),
     (anon_sym_SEMI, 310), (anon_sym_PERCENT, 312), (aux_sym_input_decls_token1, 314),
     (aux_sym_output_decls_token1, 316), (aux_sym_in_out_decls_token1, 318),
     (aux_sym_var_decls_token1, 320), (aux_sym_temp_var_decls_token1, 322),
     (aux_sym_external_var_decls_token1, 324), (aux_sym_global_var_decls_token1, 326),
     (aux_sym_fb_decl_token4, 604), (aux_sym_method_decl_token1, 330),
     (aux_sym_prog_access_decls_token1, 332), (aux_sym_initial_step_token1, 334),
     (aux_sym_config_init_token1, 336), (aux_sym_using_directive_token1, 338),
     (aux_sym__stmt_token1, 340), (aux_sym__stmt_token2, 340), (aux_sym__stmt_token3, 340),
     (aux_sym_if_stmt_token1, 342), (aux_sym_case_stmt_token1, 344), (aux_sym_for_stmt_token1, 346),
     (aux_sym_while_stmt_token1, 348), (aux_sym_repeat_stmt_token1, 350),
     (aux_sym_raise_stmt_token1, 352), (aux_sym_try_stmt_token1, 354),
     (aux_sym_try_stmt_token2, 356), (aux_sym_catch_clause_token1, 356),
     (aux_sym_finally_clause_token1, 356), (sym_ld_rung, 358), (sym_fbd_network, 360),
     (sym_c_style_comment, 3), (sym_pascal_style_comment, 3), (sym_pragma, 3)]"

lemma ts_parse_row_186_scan: "row_scan tokens_63_2 0 ts_parse_row_186 = Some (Suc (Suc (Suc (Suc 0))))"
  unfolding ts_parse_row_186_def by simp

text \<open>Lines 75922 to 76040.\<close>

definition ts_parse_row_187 :: parse_row where
  "ts_parse_row_187 =
    [(sym_ERR_implements_multiple_times, 2978), (sym_ERR_assign_func_call, 7530),
     (sym_ERR_unexpected_this_in_path, 2372), (sym_ERR_unexpected_super_in_path, 2372),
     (sym_ERR_fb_variables_after_method, 1710), (sym_ERR_var_access_not_allowed, 3160),
     (sym_ERR_var_config_not_allowed, 3160), (sym_ERR_var_global_not_allowed, 3160),
     (sym_ERR_method_decl_in_body, 3150), (sym_extern_pragma, 7490), (sym_wasm_pragma, 3150),
     (sym_warn_pragma, 7490), (sym_allow_pragma, 3140), (sym_test_pragma, 7490),
     (sym_once_pragma, 7490), (sym_must_call_pragma, 7490), (sym_export_pragma, 7490),
     (sym_pou_pragma, 7194), (sym_direct_variable, 7675), (sym_deref_expression, 2373),
     (sym_variable, 7599), (sym_var_access, 2373), (sym_in_out_decls, 3160), (sym_var_decls, 3160),
     (sym_retain_var_decls, 3160), (sym_temp_var_decls, 3160), (sym_external_var_decls, 3160),
     (sym_global_var_decls, 2947), (sym_loc_partly_var_decl, 3160), (sym__fb_variables, 804),
     (sym_fb_input_decls, 3160), (sym_fb_output_decls, 3160), (sym_no_retain_var_decls, 3160),
     (sym_fb_body, 8727), (sym_method_decl, 806), (sym_prog_access_decls, 3043), (sym_SFC, 7970),
     (sym_SFC_network, 7612), (sym_initial_step, 7439), (sym_config_init, 3047),
     (sym_using_directive, 269), (sym_variable_access, 7530), (sym_func_call, 2961),
     (sym_stmt_list, 7970), (sym__stmt, 2024), (sym_assign, 3150), (sym_if_stmt, 3150),
     (sym_case_stmt, 3150), (sym_for_stmt, 3150), (sym_while_stmt, 3150), (sym_repeat_stmt, 3150),
     (sym_raise_stmt, 3150), (sym_try_stmt, 3150), (sym_ERR_clause_outside_try, 3150),
     (sym_begin_path_expression, 2943), (sym_invocation, 2934), (sym_any_invocation, 2935),
     (sym_this_invocation, 2641), (sym_super_invocation, 2641), (sym_super_body_invocation, 2935),
     (sym_path_expression, 2627), (sym_field_expression, 2373), (sym_index_expression, 2373),
     (sym_ladder_diagram, 7970), (sym_fb_diagram, 7970),
     (aux_sym_ERR_fb_variables_after_method_repeat1, 804), (aux_sym_func_decl_repeat1, 7194),
     (aux_sym_func_decl_repeat2, 269), (aux_sym_fb_decl_repeat2, 2978),
     (aux_sym_fb_decl_repeat3, 806), (aux_sym_SFC_repeat1, 7612), (aux_sym_stmt_list_repeat1, 2024),
     (aux_sym_ladder_diagram_repeat1, 8009), (aux_sym_fb_diagram_repeat1, 8013),
     (sym_identifier, 298), (aux_sym_ERR_implements_before_extends_token1, 486),
     (aux_sym_ERR_unexpected_this_in_path_token1, 304),
     (aux_sym_ERR_unexpected_super_in_path_token1, 306), (sym_line_comment, 3),
     (anon_sym_LBRACE, 308), (aux_sym_test_pragma_token1, 9), (aux_sym_once_pragma_token1, 11),
     (aux_sym_must_call_pragma_token1, 13), (aux_sym_export_pragma_token1, 15),
     (anon_sym_SEMI, 310), (anon_sym_PERCENT, 312), (aux_sym_input_decls_token1, 314),
     (aux_sym_output_decls_token1, 316), (aux_sym_in_out_decls_token1, 318),
     (aux_sym_var_decls_token1, 320), (aux_sym_temp_var_decls_token1, 322),
     (aux_sym_external_var_decls_token1, 324), (aux_sym_global_var_decls_token1, 326),
     (aux_sym_fb_decl_token4, 606), (aux_sym_method_decl_token1, 330),
     (aux_sym_prog_access_decls_token1, 332), (aux_sym_initial_step_token1, 334),
     (aux_sym_config_init_token1, 336), (aux_sym_using_directive_token1, 338),
     (aux_sym__stmt_token1, 340), (aux_sym__stmt_token2, 340), (aux_sym__stmt_token3, 340),
     (aux_sym_if_stmt_token1, 342), (aux_sym_case_stmt_token1, 344), (aux_sym_for_stmt_token1, 346),
     (aux_sym_while_stmt_token1, 348), (aux_sym_repeat_stmt_token1, 350),
     (aux_sym_raise_stmt_token1, 352), (aux_sym_try_stmt_token1, 354),
     (aux_sym_try_stmt_token2, 356), (aux_sym_catch_clause_token1, 356),
     (aux_sym_finally_clause_token1, 356), (sym_ld_rung, 358), (sym_fbd_network, 360),
     (sym_c_style_comment, 3), (sym_pascal_style_comment, 3), (sym_pragma, 3)]"

lemma ts_parse_row_187_scan: "row_scan tokens_63_2 0 ts_parse_row_187 = Some (Suc (Suc (Suc (Suc 0))))"
  unfolding ts_parse_row_187_def by simp

text \<open>Lines 76041 to 76159.\<close>

definition ts_parse_row_188 :: parse_row where
  "ts_parse_row_188 =
    [(sym_ERR_implements_multiple_times, 2978), (sym_ERR_assign_func_call, 7530),
     (sym_ERR_unexpected_this_in_path, 2372), (sym_ERR_unexpected_super_in_path, 2372),
     (sym_ERR_fb_variables_after_method, 1774), (sym_ERR_var_access_not_allowed, 3160),
     (sym_ERR_var_config_not_allowed, 3160), (sym_ERR_var_global_not_allowed, 3160),
     (sym_ERR_method_decl_in_body, 3150), (sym_extern_pragma, 7490), (sym_wasm_pragma, 3150),
     (sym_warn_pragma, 7490), (sym_allow_pragma, 3140), (sym_test_pragma, 7490),
     (sym_once_pragma, 7490), (sym_must_call_pragma, 7490), (sym_export_pragma, 7490),
     (sym_pou_pragma, 7194), (sym_direct_variable, 7675), (sym_deref_expression, 2373),
     (sym_variable, 7599), (sym_var_access, 2373), (sym_in_out_decls, 3160), (sym_var_decls, 3160),
     (sym_retain_var_decls, 3160), (sym_temp_var_decls, 3160), (sym_external_var_decls, 3160),
     (sym_global_var_decls, 2947), (sym_loc_partly_var_decl, 3160), (sym__fb_variables, 828),
     (sym_fb_input_decls, 3160), (sym_fb_output_decls, 3160), (sym_no_retain_var_decls, 3160),
     (sym_fb_body, 8243), (sym_method_decl, 830), (sym_prog_access_decls, 3043), (sym_SFC, 7970),
     (sym_SFC_network, 7612), (sym_initial_step, 7439), (sym_config_init, 3047),
     (sym_using_directive, 271), (sym_variable_access, 7530), (sym_func_call, 2961),
     (sym_stmt_list, 7970), (sym__stmt, 2024), (sym_assign, 3150), (sym_if_stmt, 3150),
     (sym_case_stmt, 3150), (sym_for_stmt, 3150), (sym_while_stmt, 3150), (sym_repeat_stmt, 3150),
     (sym_raise_stmt, 3150), (sym_try_stmt, 3150), (sym_ERR_clause_outside_try, 3150),
     (sym_begin_path_expression, 2943), (sym_invocation, 2934), (sym_any_invocation, 2935),
     (sym_this_invocation, 2641), (sym_super_invocation, 2641), (sym_super_body_invocation, 2935),
     (sym_path_expression, 2627), (sym_field_expression, 2373), (sym_index_expression, 2373),
     (sym_ladder_diagram, 7970), (sym_fb_diagram, 7970),
     (aux_sym_ERR_fb_variables_after_method_repeat1, 828), (aux_sym_func_decl_repeat1, 7194),
     (aux_sym_func_decl_repeat2, 271), (aux_sym_fb_decl_repeat2, 2978),
     (aux_sym_fb_decl_repeat3, 830), (aux_sym_SFC_repeat1, 7612), (aux_sym_stmt_list_repeat1, 2024),
     (aux_sym_ladder_diagram_repeat1, 8009), (aux_sym_fb_diagram_repeat1, 8013),
     (sym_identifier, 298), (aux_sym_ERR_implements_before_extends_token1, 486),
     (aux_sym_ERR_unexpected_this_in_path_token1, 304),
     (aux_sym_ERR_unexpected_super_in_path_token1, 306), (sym_line_comment, 3),
     (anon_sym_LBRACE, 308), (aux_sym_test_pragma_token1, 9), (aux_sym_once_pragma_token1, 11),
     (aux_sym_must_call_pragma_token1, 13), (aux_sym_export_pragma_token1, 15),
     (anon_sym_SEMI, 310), (anon_sym_PERCENT, 312), (aux_sym_input_decls_token1, 314),
     (aux_sym_output_decls_token1, 316), (aux_sym_in_out_decls_token1, 318),
     (aux_sym_var_decls_token1, 320), (aux_sym_temp_var_decls_token1, 322),
     (aux_sym_external_var_decls_token1, 324), (aux_sym_global_var_decls_token1, 326),
     (aux_sym_fb_decl_token4, 608), (aux_sym_method_decl_token1, 330),
     (aux_sym_prog_access_decls_token1, 332), (aux_sym_initial_step_token1, 334),
     (aux_sym_config_init_token1, 336), (aux_sym_using_directive_token1, 338),
     (aux_sym__stmt_token1, 340), (aux_sym__stmt_token2, 340), (aux_sym__stmt_token3, 340),
     (aux_sym_if_stmt_token1, 342), (aux_sym_case_stmt_token1, 344), (aux_sym_for_stmt_token1, 346),
     (aux_sym_while_stmt_token1, 348), (aux_sym_repeat_stmt_token1, 350),
     (aux_sym_raise_stmt_token1, 352), (aux_sym_try_stmt_token1, 354),
     (aux_sym_try_stmt_token2, 356), (aux_sym_catch_clause_token1, 356),
     (aux_sym_finally_clause_token1, 356), (sym_ld_rung, 358), (sym_fbd_network, 360),
     (sym_c_style_comment, 3), (sym_pascal_style_comment, 3), (sym_pragma, 3)]"

lemma ts_parse_row_188_scan: "row_scan tokens_63_2 0 ts_parse_row_188 = Some (Suc (Suc (Suc (Suc 0))))"
  unfolding ts_parse_row_188_def by simp

text \<open>Lines 76160 to 76278.\<close>

definition ts_parse_row_189 :: parse_row where
  "ts_parse_row_189 =
    [(sym_ERR_implements_multiple_times, 2978), (sym_ERR_assign_func_call, 7530),
     (sym_ERR_unexpected_this_in_path, 2372), (sym_ERR_unexpected_super_in_path, 2372),
     (sym_ERR_fb_variables_after_method, 1426), (sym_ERR_var_access_not_allowed, 3160),
     (sym_ERR_var_config_not_allowed, 3160), (sym_ERR_var_global_not_allowed, 3160),
     (sym_ERR_method_decl_in_body, 3150), (sym_extern_pragma, 7490), (sym_wasm_pragma, 3150),
     (sym_warn_pragma, 7490), (sym_allow_pragma, 3140), (sym_test_pragma, 7490),
     (sym_once_pragma, 7490), (sym_must_call_pragma, 7490), (sym_export_pragma, 7490),
     (sym_pou_pragma, 7194), (sym_direct_variable, 7675), (sym_deref_expression, 2373),
     (sym_variable, 7599), (sym_var_access, 2373), (sym_in_out_decls, 3160), (sym_var_decls, 3160),
     (sym_retain_var_decls, 3160), (sym_temp_var_decls, 3160), (sym_external_var_decls, 3160),
     (sym_global_var_decls, 2947), (sym_loc_partly_var_decl, 3160), (sym__fb_variables, 306),
     (sym_fb_input_decls, 3160), (sym_fb_output_decls, 3160), (sym_no_retain_var_decls, 3160),
     (sym_fb_body, 10093), (sym_method_decl, 309), (sym_prog_access_decls, 3043), (sym_SFC, 7970),
     (sym_SFC_network, 7612), (sym_initial_step, 7439), (sym_config_init, 3047),
     (sym_using_directive, 289), (sym_variable_access, 7530), (sym_func_call, 2961),
     (sym_stmt_list, 7970), (sym__stmt, 2024), (sym_assign, 3150), (sym_if_stmt, 3150),
     (sym_case_stmt, 3150), (sym_for_stmt, 3150), (sym_while_stmt, 3150), (sym_repeat_stmt, 3150),
     (sym_raise_stmt, 3150), (sym_try_stmt, 3150), (sym_ERR_clause_outside_try, 3150),
     (sym_begin_path_expression, 2943), (sym_invocation, 2934), (sym_any_invocation, 2935),
     (sym_this_invocation, 2641), (sym_super_invocation, 2641), (sym_super_body_invocation, 2935),
     (sym_path_expression, 2627), (sym_field_expression, 2373), (sym_index_expression, 2373),
     (sym_ladder_diagram, 7970), (sym_fb_diagram, 7970),
     (aux_sym_ERR_fb_variables_after_method_repeat1, 306), (aux_sym_func_decl_repeat1, 7194),
     (aux_sym_func_decl_repeat2, 289), (aux_sym_fb_decl_repeat2, 2978),
     (aux_sym_fb_decl_repeat3, 309), (aux_sym_SFC_repeat1, 7612), (aux_sym_stmt_list_repeat1, 2024),
     (aux_sym_ladder_diagram_repeat1, 8009), (aux_sym_fb_diagram_repeat1, 8013),
     (sym_identifier, 298), (aux_sym_ERR_implements_before_extends_token1, 486),
     (aux_sym_ERR_unexpected_this_in_path_token1, 304),
     (aux_sym_ERR_unexpected_super_in_path_token1, 306), (sym_line_comment, 3),
     (anon_sym_LBRACE, 308), (aux_sym_test_pragma_token1, 9), (aux_sym_once_pragma_token1, 11),
     (aux_sym_must_call_pragma_token1, 13), (aux_sym_export_pragma_token1, 15),
     (anon_sym_SEMI, 310), (anon_sym_PERCENT, 312), (aux_sym_input_decls_token1, 314),
     (aux_sym_output_decls_token1, 316), (aux_sym_in_out_decls_token1, 318),
     (aux_sym_var_decls_token1, 320), (aux_sym_temp_var_decls_token1, 322),
     (aux_sym_external_var_decls_token1, 324), (aux_sym_global_var_decls_token1, 326),
     (aux_sym_fb_decl_token4, 470), (aux_sym_method_decl_token1, 330),
     (aux_sym_prog_access_decls_token1, 332), (aux_sym_initial_step_token1, 334),
     (aux_sym_config_init_token1, 336), (aux_sym_using_directive_token1, 338),
     (aux_sym__stmt_token1, 340), (aux_sym__stmt_token2, 340), (aux_sym__stmt_token3, 340),
     (aux_sym_if_stmt_token1, 342), (aux_sym_case_stmt_token1, 344), (aux_sym_for_stmt_token1, 346),
     (aux_sym_while_stmt_token1, 348), (aux_sym_repeat_stmt_token1, 350),
     (aux_sym_raise_stmt_token1, 352), (aux_sym_try_stmt_token1, 354),
     (aux_sym_try_stmt_token2, 356), (aux_sym_catch_clause_token1, 356),
     (aux_sym_finally_clause_token1, 356), (sym_ld_rung, 358), (sym_fbd_network, 360),
     (sym_c_style_comment, 3), (sym_pascal_style_comment, 3), (sym_pragma, 3)]"

lemma ts_parse_row_189_scan: "row_scan tokens_63_2 0 ts_parse_row_189 = Some (Suc (Suc (Suc (Suc 0))))"
  unfolding ts_parse_row_189_def by simp

text \<open>Lines 76279 to 76397.\<close>

definition ts_parse_row_190 :: parse_row where
  "ts_parse_row_190 =
    [(sym_ERR_implements_multiple_times, 145), (sym_ERR_assign_func_call, 7530),
     (sym_ERR_unexpected_this_in_path, 2372), (sym_ERR_unexpected_super_in_path, 2372),
     (sym_ERR_fb_variables_after_method, 1444), (sym_ERR_var_access_not_allowed, 3160),
     (sym_ERR_var_config_not_allowed, 3160), (sym_ERR_var_global_not_allowed, 3160),
     (sym_ERR_method_decl_in_body, 3150), (sym_extern_pragma, 7490), (sym_wasm_pragma, 3150),
     (sym_warn_pragma, 7490), (sym_allow_pragma, 3140), (sym_test_pragma, 7490),
     (sym_once_pragma, 7490), (sym_must_call_pragma, 7490), (sym_export_pragma, 7490),
     (sym_pou_pragma, 7194), (sym_direct_variable, 7675), (sym_deref_expression, 2373),
     (sym_variable, 7599), (sym_var_access, 2373), (sym_in_out_decls, 3160), (sym_var_decls, 3160),
     (sym_retain_var_decls, 3160), (sym_temp_var_decls, 3160), (sym_external_var_decls, 3160),
     (sym_global_var_decls, 2947), (sym_loc_partly_var_decl, 3160), (sym__fb_variables, 310),
     (sym_fb_input_decls, 3160), (sym_fb_output_decls, 3160), (sym_no_retain_var_decls, 3160),
     (sym_fb_body, 10293), (sym_method_decl, 313), (sym_prog_access_decls, 3043), (sym_SFC, 7970),
     (sym_SFC_network, 7612), (sym_initial_step, 7439), (sym_config_init, 3047),
     (sym_using_directive, 294), (sym_variable_access, 7530), (sym_func_call, 2961),
     (sym_stmt_list, 7970), (sym__stmt, 2024), (sym_assign, 3150), (sym_if_stmt, 3150),
     (sym_case_stmt, 3150), (sym_for_stmt, 3150), (sym_while_stmt, 3150), (sym_repeat_stmt, 3150),
     (sym_raise_stmt, 3150), (sym_try_stmt, 3150), (sym_ERR_clause_outside_try, 3150),
     (sym_begin_path_expression, 2943), (sym_invocation, 2934), (sym_any_invocation, 2935),
     (sym_this_invocation, 2641), (sym_super_invocation, 2641), (sym_super_body_invocation, 2935),
     (sym_path_expression, 2627), (sym_field_expression, 2373), (sym_index_expression, 2373),
     (sym_ladder_diagram, 7970), (sym_fb_diagram, 7970),
     (aux_sym_ERR_fb_variables_after_method_repeat1, 310), (aux_sym_func_decl_repeat1, 7194),
     (aux_sym_func_decl_repeat2, 294), (aux_sym_fb_decl_repeat2, 145),
     (aux_sym_fb_decl_repeat3, 313), (aux_sym_SFC_repeat1, 7612), (aux_sym_stmt_list_repeat1, 2024),
     (aux_sym_ladder_diagram_repeat1, 8009), (aux_sym_fb_diagram_repeat1, 8013),
     (sym_identifier, 298), (aux_sym_ERR_implements_before_extends_token1, 486),
     (aux_sym_ERR_unexpected_this_in_path_token1, 304),
     (aux_sym_ERR_unexpected_super_in_path_token1, 306), (sym_line_comment, 3),
     (anon_sym_LBRACE, 308), (aux_sym_test_pragma_token1, 9), (aux_sym_once_pragma_token1, 11),
     (aux_sym_must_call_pragma_token1, 13), (aux_sym_export_pragma_token1, 15),
     (anon_sym_SEMI, 310), (anon_sym_PERCENT, 312), (aux_sym_input_decls_token1, 314),
     (aux_sym_output_decls_token1, 316), (aux_sym_in_out_decls_token1, 318),
     (aux_sym_var_decls_token1, 320), (aux_sym_temp_var_decls_token1, 322),
     (aux_sym_external_var_decls_token1, 324), (aux_sym_global_var_decls_token1, 326),
     (aux_sym_fb_decl_token4, 610), (aux_sym_method_decl_token1, 330),
     (aux_sym_prog_access_decls_token1, 332), (aux_sym_initial_step_token1, 334),
     (aux_sym_config_init_token1, 336), (aux_sym_using_directive_token1, 338),
     (aux_sym__stmt_token1, 340), (aux_sym__stmt_token2, 340), (aux_sym__stmt_token3, 340),
     (aux_sym_if_stmt_token1, 342), (aux_sym_case_stmt_token1, 344), (aux_sym_for_stmt_token1, 346),
     (aux_sym_while_stmt_token1, 348), (aux_sym_repeat_stmt_token1, 350),
     (aux_sym_raise_stmt_token1, 352), (aux_sym_try_stmt_token1, 354),
     (aux_sym_try_stmt_token2, 356), (aux_sym_catch_clause_token1, 356),
     (aux_sym_finally_clause_token1, 356), (sym_ld_rung, 358), (sym_fbd_network, 360),
     (sym_c_style_comment, 3), (sym_pascal_style_comment, 3), (sym_pragma, 3)]"

lemma ts_parse_row_190_scan: "row_scan tokens_63_2 0 ts_parse_row_190 = Some (Suc (Suc (Suc (Suc 0))))"
  unfolding ts_parse_row_190_def by simp

text \<open>Lines 76398 to 76516.\<close>

definition ts_parse_row_191 :: parse_row where
  "ts_parse_row_191 =
    [(sym_ERR_implements_multiple_times, 2978), (sym_ERR_assign_func_call, 7530),
     (sym_ERR_unexpected_this_in_path, 2372), (sym_ERR_unexpected_super_in_path, 2372),
     (sym_ERR_fb_variables_after_method, 1643), (sym_ERR_var_access_not_allowed, 3160),
     (sym_ERR_var_config_not_allowed, 3160), (sym_ERR_var_global_not_allowed, 3160),
     (sym_ERR_method_decl_in_body, 3150), (sym_extern_pragma, 7490), (sym_wasm_pragma, 3150),
     (sym_warn_pragma, 7490), (sym_allow_pragma, 3140), (sym_test_pragma, 7490),
     (sym_once_pragma, 7490), (sym_must_call_pragma, 7490), (sym_export_pragma, 7490),
     (sym_pou_pragma, 7194), (sym_direct_variable, 7675), (sym_deref_expression, 2373),
     (sym_variable, 7599), (sym_var_access, 2373), (sym_in_out_decls, 3160), (sym_var_decls, 3160),
     (sym_retain_var_decls, 3160), (sym_temp_var_decls, 3160), (sym_external_var_decls, 3160),
     (sym_global_var_decls, 2947), (sym_loc_partly_var_decl, 3160), (sym__fb_variables, 308),
     (sym_fb_input_decls, 3160), (sym_fb_output_decls, 3160), (sym_no_retain_var_decls, 3160),
     (sym_fb_body, 8229), (sym_method_decl, 312), (sym_prog_access_decls, 3043), (sym_SFC, 7970),
     (sym_SFC_network, 7612), (sym_initial_step, 7439), (sym_config_init, 3047),
     (sym_using_directive, 299), (sym_variable_access, 7530), (sym_func_call, 2961),
     (sym_stmt_list, 7970), (sym__stmt, 2024), (sym_assign, 3150), (sym_if_stmt, 3150),
     (sym_case_stmt, 3150), (sym_for_stmt, 3150), (sym_while_stmt, 3150), (sym_repeat_stmt, 3150),
     (sym_raise_stmt, 3150), (sym_try_stmt, 3150), (sym_ERR_clause_outside_try, 3150),
     (sym_begin_path_expression, 2943), (sym_invocation, 2934), (sym_any_invocation, 2935),
     (sym_this_invocation, 2641), (sym_super_invocation, 2641), (sym_super_body_invocation, 2935),
     (sym_path_expression, 2627), (sym_field_expression, 2373), (sym_index_expression, 2373),
     (sym_ladder_diagram, 7970), (sym_fb_diagram, 7970),
     (aux_sym_ERR_fb_variables_after_method_repeat1, 308), (aux_sym_func_decl_repeat1, 7194),
     (aux_sym_func_decl_repeat2, 299), (aux_sym_fb_decl_repeat2, 2978),
     (aux_sym_fb_decl_repeat3, 312), (aux_sym_SFC_repeat1, 7612), (aux_sym_stmt_list_repeat1, 2024),
     (aux_sym_ladder_diagram_repeat1, 8009), (aux_sym_fb_diagram_repeat1, 8013),
     (sym_identifier, 298), (aux_sym_ERR_implements_before_extends_token1, 486),
     (aux_sym_ERR_unexpected_this_in_path_token1, 304),
     (aux_sym_ERR_unexpected_super_in_path_token1, 306), (sym_line_comment, 3),
     (anon_sym_LBRACE, 308), (aux_sym_test_pragma_token1, 9), (aux_sym_once_pragma_token1, 11),
     (aux_sym_must_call_pragma_token1, 13), (aux_sym_export_pragma_token1, 15),
     (anon_sym_SEMI, 310), (anon_sym_PERCENT, 312), (aux_sym_input_decls_token1, 314),
     (aux_sym_output_decls_token1, 316), (aux_sym_in_out_decls_token1, 318),
     (aux_sym_var_decls_token1, 320), (aux_sym_temp_var_decls_token1, 322),
     (aux_sym_external_var_decls_token1, 324), (aux_sym_global_var_decls_token1, 326),
     (aux_sym_fb_decl_token4, 612), (aux_sym_method_decl_token1, 330),
     (aux_sym_prog_access_decls_token1, 332), (aux_sym_initial_step_token1, 334),
     (aux_sym_config_init_token1, 336), (aux_sym_using_directive_token1, 338),
     (aux_sym__stmt_token1, 340), (aux_sym__stmt_token2, 340), (aux_sym__stmt_token3, 340),
     (aux_sym_if_stmt_token1, 342), (aux_sym_case_stmt_token1, 344), (aux_sym_for_stmt_token1, 346),
     (aux_sym_while_stmt_token1, 348), (aux_sym_repeat_stmt_token1, 350),
     (aux_sym_raise_stmt_token1, 352), (aux_sym_try_stmt_token1, 354),
     (aux_sym_try_stmt_token2, 356), (aux_sym_catch_clause_token1, 356),
     (aux_sym_finally_clause_token1, 356), (sym_ld_rung, 358), (sym_fbd_network, 360),
     (sym_c_style_comment, 3), (sym_pascal_style_comment, 3), (sym_pragma, 3)]"

lemma ts_parse_row_191_scan: "row_scan tokens_63_2 0 ts_parse_row_191 = Some (Suc (Suc (Suc (Suc 0))))"
  unfolding ts_parse_row_191_def by simp

text \<open>Lines 76517 to 76635.\<close>

definition ts_parse_row_192 :: parse_row where
  "ts_parse_row_192 =
    [(sym_ERR_implements_multiple_times, 2978), (sym_ERR_assign_func_call, 7530),
     (sym_ERR_unexpected_this_in_path, 2372), (sym_ERR_unexpected_super_in_path, 2372),
     (sym_ERR_fb_variables_after_method, 1299), (sym_ERR_var_access_not_allowed, 3160),
     (sym_ERR_var_config_not_allowed, 3160), (sym_ERR_var_global_not_allowed, 3160),
     (sym_ERR_method_decl_in_body, 3150), (sym_extern_pragma, 7490), (sym_wasm_pragma, 3150),
     (sym_warn_pragma, 7490), (sym_allow_pragma, 3140), (sym_test_pragma, 7490),
     (sym_once_pragma, 7490), (sym_must_call_pragma, 7490), (sym_export_pragma, 7490),
     (sym_pou_pragma, 7194), (sym_direct_variable, 7675), (sym_deref_expression, 2373),
     (sym_variable, 7599), (sym_var_access, 2373), (sym_in_out_decls, 3160), (sym_var_decls, 3160),
     (sym_retain_var_decls, 3160), (sym_temp_var_decls, 3160), (sym_external_var_decls, 3160),
     (sym_global_var_decls, 2947), (sym_loc_partly_var_decl, 3160), (sym__fb_variables, 695),
     (sym_fb_input_decls, 3160), (sym_fb_output_decls, 3160), (sym_no_retain_var_decls, 3160),
     (sym_fb_body, 9822), (sym_method_decl, 706), (sym_prog_access_decls, 3043), (sym_SFC, 7970),
     (sym_SFC_network, 7612), (sym_initial_step, 7439), (sym_config_init, 3047),
     (sym_using_directive, 292), (sym_variable_access, 7530), (sym_func_call, 2961),
     (sym_stmt_list, 7970), (sym__stmt, 2024), (sym_assign, 3150), (sym_if_stmt, 3150),
     (sym_case_stmt, 3150), (sym_for_stmt, 3150), (sym_while_stmt, 3150), (sym_repeat_stmt, 3150),
     (sym_raise_stmt, 3150), (sym_try_stmt, 3150), (sym_ERR_clause_outside_try, 3150),
     (sym_begin_path_expression, 2943), (sym_invocation, 2934), (sym_any_invocation, 2935),
     (sym_this_invocation, 2641), (sym_super_invocation, 2641), (sym_super_body_invocation, 2935),
     (sym_path_expression, 2627), (sym_field_expression, 2373), (sym_index_expression, 2373),
     (sym_ladder_diagram, 7970), (sym_fb_diagram, 7970),
     (aux_sym_ERR_fb_variables_after_method_repeat1, 695), (aux_sym_func_decl_repeat1, 7194),
     (aux_sym_func_decl_repeat2, 292), (aux_sym_fb_decl_repeat2, 2978),
     (aux_sym_fb_decl_repeat3, 706), (aux_sym_SFC_repeat1, 7612), (aux_sym_stmt_list_repeat1, 2024),
     (aux_sym_ladder_diagram_repeat1, 8009), (aux_sym_fb_diagram_repeat1, 8013),
     (sym_identifier, 298), (aux_sym_ERR_implements_before_extends_token1, 486),
     (aux_sym_ERR_unexpected_this_in_path_token1, 304),
     (aux_sym_ERR_unexpected_super_in_path_token1, 306), (sym_line_comment, 3),
     (anon_sym_LBRACE, 308), (aux_sym_test_pragma_token1, 9), (aux_sym_once_pragma_token1, 11),
     (aux_sym_must_call_pragma_token1, 13), (aux_sym_export_pragma_token1, 15),
     (anon_sym_SEMI, 310), (anon_sym_PERCENT, 312), (aux_sym_input_decls_token1, 314),
     (aux_sym_output_decls_token1, 316), (aux_sym_in_out_decls_token1, 318),
     (aux_sym_var_decls_token1, 320), (aux_sym_temp_var_decls_token1, 322),
     (aux_sym_external_var_decls_token1, 324), (aux_sym_global_var_decls_token1, 326),
     (aux_sym_fb_decl_token4, 614), (aux_sym_method_decl_token1, 330),
     (aux_sym_prog_access_decls_token1, 332), (aux_sym_initial_step_token1, 334),
     (aux_sym_config_init_token1, 336), (aux_sym_using_directive_token1, 338),
     (aux_sym__stmt_token1, 340), (aux_sym__stmt_token2, 340), (aux_sym__stmt_token3, 340),
     (aux_sym_if_stmt_token1, 342), (aux_sym_case_stmt_token1, 344), (aux_sym_for_stmt_token1, 346),
     (aux_sym_while_stmt_token1, 348), (aux_sym_repeat_stmt_token1, 350),
     (aux_sym_raise_stmt_token1, 352), (aux_sym_try_stmt_token1, 354),
     (aux_sym_try_stmt_token2, 356), (aux_sym_catch_clause_token1, 356),
     (aux_sym_finally_clause_token1, 356), (sym_ld_rung, 358), (sym_fbd_network, 360),
     (sym_c_style_comment, 3), (sym_pascal_style_comment, 3), (sym_pragma, 3)]"

lemma ts_parse_row_192_scan: "row_scan tokens_63_2 0 ts_parse_row_192 = Some (Suc (Suc (Suc (Suc 0))))"
  unfolding ts_parse_row_192_def by simp

text \<open>Lines 76636 to 76754.\<close>

definition ts_parse_row_193 :: parse_row where
  "ts_parse_row_193 =
    [(sym_ERR_implements_multiple_times, 2978), (sym_ERR_assign_func_call, 7530),
     (sym_ERR_unexpected_this_in_path, 2372), (sym_ERR_unexpected_super_in_path, 2372),
     (sym_ERR_fb_variables_after_method, 1831), (sym_ERR_var_access_not_allowed, 3160),
     (sym_ERR_var_config_not_allowed, 3160), (sym_ERR_var_global_not_allowed, 3160),
     (sym_ERR_method_decl_in_body, 3150), (sym_extern_pragma, 7490), (sym_wasm_pragma, 3150),
     (sym_warn_pragma, 7490), (sym_allow_pragma, 3140), (sym_test_pragma, 7490),
     (sym_once_pragma, 7490), (sym_must_call_pragma, 7490), (sym_export_pragma, 7490),
     (sym_pou_pragma, 7194), (sym_direct_variable, 7675), (sym_deref_expression, 2373),
     (sym_variable, 7599), (sym_var_access, 2373), (sym_in_out_decls, 3160), (sym_var_decls, 3160),
     (sym_retain_var_decls, 3160), (sym_temp_var_decls, 3160), (sym_external_var_decls, 3160),
     (sym_global_var_decls, 2947), (sym_loc_partly_var_decl, 3160), (sym__fb_variables, 320),
     (sym_fb_input_decls, 3160), (sym_fb_output_decls, 3160), (sym_no_retain_var_decls, 3160),
     (sym_fb_body, 8249), (sym_method_decl, 329), (sym_prog_access_decls, 3043), (sym_SFC, 7970),
     (sym_SFC_network, 7612), (sym_initial_step, 7439), (sym_config_init, 3047),
     (sym_using_directive, 263), (sym_variable_access, 7530), (sym_func_call, 2961),
     (sym_stmt_list, 7970), (sym__stmt, 2024), (sym_assign, 3150), (sym_if_stmt, 3150),
     (sym_case_stmt, 3150), (sym_for_stmt, 3150), (sym_while_stmt, 3150), (sym_repeat_stmt, 3150),
     (sym_raise_stmt, 3150), (sym_try_stmt, 3150), (sym_ERR_clause_outside_try, 3150),
     (sym_begin_path_expression, 2943), (sym_invocation, 2934), (sym_any_invocation, 2935),
     (sym_this_invocation, 2641), (sym_super_invocation, 2641), (sym_super_body_invocation, 2935),
     (sym_path_expression, 2627), (sym_field_expression, 2373), (sym_index_expression, 2373),
     (sym_ladder_diagram, 7970), (sym_fb_diagram, 7970),
     (aux_sym_ERR_fb_variables_after_method_repeat1, 320), (aux_sym_func_decl_repeat1, 7194),
     (aux_sym_func_decl_repeat2, 263), (aux_sym_fb_decl_repeat2, 2978),
     (aux_sym_fb_decl_repeat3, 329), (aux_sym_SFC_repeat1, 7612), (aux_sym_stmt_list_repeat1, 2024),
     (aux_sym_ladder_diagram_repeat1, 8009), (aux_sym_fb_diagram_repeat1, 8013),
     (sym_identifier, 298), (aux_sym_ERR_implements_before_extends_token1, 486),
     (aux_sym_ERR_unexpected_this_in_path_token1, 304),
     (aux_sym_ERR_unexpected_super_in_path_token1, 306), (sym_line_comment, 3),
     (anon_sym_LBRACE, 308), (aux_sym_test_pragma_token1, 9), (aux_sym_once_pragma_token1, 11),
     (aux_sym_must_call_pragma_token1, 13), (aux_sym_export_pragma_token1, 15),
     (anon_sym_SEMI, 310), (anon_sym_PERCENT, 312), (aux_sym_input_decls_token1, 314),
     (aux_sym_output_decls_token1, 316), (aux_sym_in_out_decls_token1, 318),
     (aux_sym_var_decls_token1, 320), (aux_sym_temp_var_decls_token1, 322),
     (aux_sym_external_var_decls_token1, 324), (aux_sym_global_var_decls_token1, 326),
     (aux_sym_fb_decl_token4, 458), (aux_sym_method_decl_token1, 330),
     (aux_sym_prog_access_decls_token1, 332), (aux_sym_initial_step_token1, 334),
     (aux_sym_config_init_token1, 336), (aux_sym_using_directive_token1, 338),
     (aux_sym__stmt_token1, 340), (aux_sym__stmt_token2, 340), (aux_sym__stmt_token3, 340),
     (aux_sym_if_stmt_token1, 342), (aux_sym_case_stmt_token1, 344), (aux_sym_for_stmt_token1, 346),
     (aux_sym_while_stmt_token1, 348), (aux_sym_repeat_stmt_token1, 350),
     (aux_sym_raise_stmt_token1, 352), (aux_sym_try_stmt_token1, 354),
     (aux_sym_try_stmt_token2, 356), (aux_sym_catch_clause_token1, 356),
     (aux_sym_finally_clause_token1, 356), (sym_ld_rung, 358), (sym_fbd_network, 360),
     (sym_c_style_comment, 3), (sym_pascal_style_comment, 3), (sym_pragma, 3)]"

lemma ts_parse_row_193_scan: "row_scan tokens_63_2 0 ts_parse_row_193 = Some (Suc (Suc (Suc (Suc 0))))"
  unfolding ts_parse_row_193_def by simp

text \<open>Lines 76755 to 76873.\<close>

definition ts_parse_row_194 :: parse_row where
  "ts_parse_row_194 =
    [(sym_ERR_implements_multiple_times, 2978), (sym_ERR_assign_func_call, 7530),
     (sym_ERR_unexpected_this_in_path, 2372), (sym_ERR_unexpected_super_in_path, 2372),
     (sym_ERR_fb_variables_after_method, 1483), (sym_ERR_var_access_not_allowed, 3160),
     (sym_ERR_var_config_not_allowed, 3160), (sym_ERR_var_global_not_allowed, 3160),
     (sym_ERR_method_decl_in_body, 3150), (sym_extern_pragma, 7490), (sym_wasm_pragma, 3150),
     (sym_warn_pragma, 7490), (sym_allow_pragma, 3140), (sym_test_pragma, 7490),
     (sym_once_pragma, 7490), (sym_must_call_pragma, 7490), (sym_export_pragma, 7490),
     (sym_pou_pragma, 7194), (sym_direct_variable, 7675), (sym_deref_expression, 2373),
     (sym_variable, 7599), (sym_var_access, 2373), (sym_in_out_decls, 3160), (sym_var_decls, 3160),
     (sym_retain_var_decls, 3160), (sym_temp_var_decls, 3160), (sym_external_var_decls, 3160),
     (sym_global_var_decls, 2947), (sym_loc_partly_var_decl, 3160), (sym__fb_variables, 324),
     (sym_fb_input_decls, 3160), (sym_fb_output_decls, 3160), (sym_no_retain_var_decls, 3160),
     (sym_fb_body, 8244), (sym_method_decl, 326), (sym_prog_access_decls, 3043), (sym_SFC, 7970),
     (sym_SFC_network, 7612), (sym_initial_step, 7439), (sym_config_init, 3047),
     (sym_using_directive, 217), (sym_variable_access, 7530), (sym_func_call, 2961),
     (sym_stmt_list, 7970), (sym__stmt, 2024), (sym_assign, 3150), (sym_if_stmt, 3150),
     (sym_case_stmt, 3150), (sym_for_stmt, 3150), (sym_while_stmt, 3150), (sym_repeat_stmt, 3150),
     (sym_raise_stmt, 3150), (sym_try_stmt, 3150), (sym_ERR_clause_outside_try, 3150),
     (sym_begin_path_expression, 2943), (sym_invocation, 2934), (sym_any_invocation, 2935),
     (sym_this_invocation, 2641), (sym_super_invocation, 2641), (sym_super_body_invocation, 2935),
     (sym_path_expression, 2627), (sym_field_expression, 2373), (sym_index_expression, 2373),
     (sym_ladder_diagram, 7970), (sym_fb_diagram, 7970),
     (aux_sym_ERR_fb_variables_after_method_repeat1, 324), (aux_sym_func_decl_repeat1, 7194),
     (aux_sym_func_decl_repeat2, 217), (aux_sym_fb_decl_repeat2, 2978),
     (aux_sym_fb_decl_repeat3, 326), (aux_sym_SFC_repeat1, 7612), (aux_sym_stmt_list_repeat1, 2024),
     (aux_sym_ladder_diagram_repeat1, 8009), (aux_sym_fb_diagram_repeat1, 8013),
     (sym_identifier, 298), (aux_sym_ERR_implements_before_extends_token1, 486),
     (aux_sym_ERR_unexpected_this_in_path_token1, 304),
     (aux_sym_ERR_unexpected_super_in_path_token1, 306), (sym_line_comment, 3),
     (anon_sym_LBRACE, 308), (aux_sym_test_pragma_token1, 9), (aux_sym_once_pragma_token1, 11),
     (aux_sym_must_call_pragma_token1, 13), (aux_sym_export_pragma_token1, 15),
     (anon_sym_SEMI, 310), (anon_sym_PERCENT, 312), (aux_sym_input_decls_token1, 314),
     (aux_sym_output_decls_token1, 316), (aux_sym_in_out_decls_token1, 318),
     (aux_sym_var_decls_token1, 320), (aux_sym_temp_var_decls_token1, 322),
     (aux_sym_external_var_decls_token1, 324), (aux_sym_global_var_decls_token1, 326),
     (aux_sym_fb_decl_token4, 616), (aux_sym_method_decl_token1, 330),
     (aux_sym_prog_access_decls_token1, 332), (aux_sym_initial_step_token1, 334),
     (aux_sym_config_init_token1, 336), (aux_sym_using_directive_token1, 338),
     (aux_sym__stmt_token1, 340), (aux_sym__stmt_token2, 340), (aux_sym__stmt_token3, 340),
     (aux_sym_if_stmt_token1, 342), (aux_sym_case_stmt_token1, 344), (aux_sym_for_stmt_token1, 346),
     (aux_sym_while_stmt_token1, 348), (aux_sym_repeat_stmt_token1, 350),
     (aux_sym_raise_stmt_token1, 352), (aux_sym_try_stmt_token1, 354),
     (aux_sym_try_stmt_token2, 356), (aux_sym_catch_clause_token1, 356),
     (aux_sym_finally_clause_token1, 356), (sym_ld_rung, 358), (sym_fbd_network, 360),
     (sym_c_style_comment, 3), (sym_pascal_style_comment, 3), (sym_pragma, 3)]"

lemma ts_parse_row_194_scan: "row_scan tokens_63_2 0 ts_parse_row_194 = Some (Suc (Suc (Suc (Suc 0))))"
  unfolding ts_parse_row_194_def by simp

text \<open>Lines 76874 to 76992.\<close>

definition ts_parse_row_195 :: parse_row where
  "ts_parse_row_195 =
    [(sym_ERR_implements_multiple_times, 2978), (sym_ERR_assign_func_call, 7530),
     (sym_ERR_unexpected_this_in_path, 2372), (sym_ERR_unexpected_super_in_path, 2372),
     (sym_ERR_fb_variables_after_method, 1796), (sym_ERR_var_access_not_allowed, 3160),
     (sym_ERR_var_config_not_allowed, 3160), (sym_ERR_var_global_not_allowed, 3160),
     (sym_ERR_method_decl_in_body, 3150), (sym_extern_pragma, 7490), (sym_wasm_pragma, 3150),
     (sym_warn_pragma, 7490), (sym_allow_pragma, 3140), (sym_test_pragma, 7490),
     (sym_once_pragma, 7490), (sym_must_call_pragma, 7490), (sym_export_pragma, 7490),
     (sym_pou_pragma, 7194), (sym_direct_variable, 7675), (sym_deref_expression, 2373),
     (sym_variable, 7599), (sym_var_access, 2373), (sym_in_out_decls, 3160), (sym_var_decls, 3160),
     (sym_retain_var_decls, 3160), (sym_temp_var_decls, 3160), (sym_external_var_decls, 3160),
     (sym_global_var_decls, 2947), (sym_loc_partly_var_decl, 3160), (sym__fb_variables, 428),
     (sym_fb_input_decls, 3160), (sym_fb_output_decls, 3160), (sym_no_retain_var_decls, 3160),
     (sym_fb_body, 10493), (sym_method_decl, 717), (sym_prog_access_decls, 3043), (sym_SFC, 7970),
     (sym_SFC_network, 7612), (sym_initial_step, 7439), (sym_config_init, 3047),
     (sym_using_directive, 288), (sym_variable_access, 7530), (sym_func_call, 2961),
     (sym_stmt_list, 7970), (sym__stmt, 2024), (sym_assign, 3150), (sym_if_stmt, 3150),
     (sym_case_stmt, 3150), (sym_for_stmt, 3150), (sym_while_stmt, 3150), (sym_repeat_stmt, 3150),
     (sym_raise_stmt, 3150), (sym_try_stmt, 3150), (sym_ERR_clause_outside_try, 3150),
     (sym_begin_path_expression, 2943), (sym_invocation, 2934), (sym_any_invocation, 2935),
     (sym_this_invocation, 2641), (sym_super_invocation, 2641), (sym_super_body_invocation, 2935),
     (sym_path_expression, 2627), (sym_field_expression, 2373), (sym_index_expression, 2373),
     (sym_ladder_diagram, 7970), (sym_fb_diagram, 7970),
     (aux_sym_ERR_fb_variables_after_method_repeat1, 428), (aux_sym_func_decl_repeat1, 7194),
     (aux_sym_func_decl_repeat2, 288), (aux_sym_fb_decl_repeat2, 2978),
     (aux_sym_fb_decl_repeat3, 717), (aux_sym_SFC_repeat1, 7612), (aux_sym_stmt_list_repeat1, 2024),
     (aux_sym_ladder_diagram_repeat1, 8009), (aux_sym_fb_diagram_repeat1, 8013),
     (sym_identifier, 298), (aux_sym_ERR_implements_before_extends_token1, 486),
     (aux_sym_ERR_unexpected_this_in_path_token1, 304),
     (aux_sym_ERR_unexpected_super_in_path_token1, 306), (sym_line_comment, 3),
     (anon_sym_LBRACE, 308), (aux_sym_test_pragma_token1, 9), (aux_sym_once_pragma_token1, 11),
     (aux_sym_must_call_pragma_token1, 13), (aux_sym_export_pragma_token1, 15),
     (anon_sym_SEMI, 310), (anon_sym_PERCENT, 312), (aux_sym_input_decls_token1, 314),
     (aux_sym_output_decls_token1, 316), (aux_sym_in_out_decls_token1, 318),
     (aux_sym_var_decls_token1, 320), (aux_sym_temp_var_decls_token1, 322),
     (aux_sym_external_var_decls_token1, 324), (aux_sym_global_var_decls_token1, 326),
     (aux_sym_fb_decl_token4, 396), (aux_sym_method_decl_token1, 330),
     (aux_sym_prog_access_decls_token1, 332), (aux_sym_initial_step_token1, 334),
     (aux_sym_config_init_token1, 336), (aux_sym_using_directive_token1, 338),
     (aux_sym__stmt_token1, 340), (aux_sym__stmt_token2, 340), (aux_sym__stmt_token3, 340),
     (aux_sym_if_stmt_token1, 342), (aux_sym_case_stmt_token1, 344), (aux_sym_for_stmt_token1, 346),
     (aux_sym_while_stmt_token1, 348), (aux_sym_repeat_stmt_token1, 350),
     (aux_sym_raise_stmt_token1, 352), (aux_sym_try_stmt_token1, 354),
     (aux_sym_try_stmt_token2, 356), (aux_sym_catch_clause_token1, 356),
     (aux_sym_finally_clause_token1, 356), (sym_ld_rung, 358), (sym_fbd_network, 360),
     (sym_c_style_comment, 3), (sym_pascal_style_comment, 3), (sym_pragma, 3)]"

lemma ts_parse_row_195_scan: "row_scan tokens_63_2 0 ts_parse_row_195 = Some (Suc (Suc (Suc (Suc 0))))"
  unfolding ts_parse_row_195_def by simp

text \<open>Lines 76993 to 77111.\<close>

definition ts_parse_row_196 :: parse_row where
  "ts_parse_row_196 =
    [(sym_ERR_implements_multiple_times, 2978), (sym_ERR_assign_func_call, 7530),
     (sym_ERR_unexpected_this_in_path, 2372), (sym_ERR_unexpected_super_in_path, 2372),
     (sym_ERR_fb_variables_after_method, 1888), (sym_ERR_var_access_not_allowed, 3160),
     (sym_ERR_var_config_not_allowed, 3160), (sym_ERR_var_global_not_allowed, 3160),
     (sym_ERR_method_decl_in_body, 3150), (sym_extern_pragma, 7490), (sym_wasm_pragma, 3150),
     (sym_warn_pragma, 7490), (sym_allow_pragma, 3140), (sym_test_pragma, 7490),
     (sym_once_pragma, 7490), (sym_must_call_pragma, 7490), (sym_export_pragma, 7490),
     (sym_pou_pragma, 7194), (sym_direct_variable, 7675), (sym_deref_expression, 2373),
     (sym_variable, 7599), (sym_var_access, 2373), (sym_in_out_decls, 3160), (sym_var_decls, 3160),
     (sym_retain_var_decls, 3160), (sym_temp_var_decls, 3160), (sym_external_var_decls, 3160),
     (sym_global_var_decls, 2947), (sym_loc_partly_var_decl, 3160), (sym__fb_variables, 394),
     (sym_fb_input_decls, 3160), (sym_fb_output_decls, 3160), (sym_no_retain_var_decls, 3160),
     (sym_fb_body, 8426), (sym_method_decl, 412), (sym_prog_access_decls, 3043), (sym_SFC, 7970),
     (sym_SFC_network, 7612), (sym_initial_step, 7439), (sym_config_init, 3047),
     (sym_using_directive, 278), (sym_variable_access, 7530), (sym_func_call, 2961),
     (sym_stmt_list, 7970), (sym__stmt, 2024), (sym_assign, 3150), (sym_if_stmt, 3150),
     (sym_case_stmt, 3150), (sym_for_stmt, 3150), (sym_while_stmt, 3150), (sym_repeat_stmt, 3150),
     (sym_raise_stmt, 3150), (sym_try_stmt, 3150), (sym_ERR_clause_outside_try, 3150),
     (sym_begin_path_expression, 2943), (sym_invocation, 2934), (sym_any_invocation, 2935),
     (sym_this_invocation, 2641), (sym_super_invocation, 2641), (sym_super_body_invocation, 2935),
     (sym_path_expression, 2627), (sym_field_expression, 2373), (sym_index_expression, 2373),
     (sym_ladder_diagram, 7970), (sym_fb_diagram, 7970),
     (aux_sym_ERR_fb_variables_after_method_repeat1, 394), (aux_sym_func_decl_repeat1, 7194),
     (aux_sym_func_decl_repeat2, 278), (aux_sym_fb_decl_repeat2, 2978),
     (aux_sym_fb_decl_repeat3, 412), (aux_sym_SFC_repeat1, 7612), (aux_sym_stmt_list_repeat1, 2024),
     (aux_sym_ladder_diagram_repeat1, 8009), (aux_sym_fb_diagram_repeat1, 8013),
     (sym_identifier, 298), (aux_sym_ERR_implements_before_extends_token1, 486),
     (aux_sym_ERR_unexpected_this_in_path_token1, 304),
     (aux_sym_ERR_unexpected_super_in_path_token1, 306), (sym_line_comment, 3),
     (anon_sym_LBRACE, 308), (aux_sym_test_pragma_token1, 9), (aux_sym_once_pragma_token1, 11),
     (aux_sym_must_call_pragma_token1, 13), (aux_sym_export_pragma_token1, 15),
     (anon_sym_SEMI, 310), (anon_sym_PERCENT, 312), (aux_sym_input_decls_token1, 314),
     (aux_sym_output_decls_token1, 316), (aux_sym_in_out_decls_token1, 318),
     (aux_sym_var_decls_token1, 320), (aux_sym_temp_var_decls_token1, 322),
     (aux_sym_external_var_decls_token1, 324), (aux_sym_global_var_decls_token1, 326),
     (aux_sym_fb_decl_token4, 462), (aux_sym_method_decl_token1, 330),
     (aux_sym_prog_access_decls_token1, 332), (aux_sym_initial_step_token1, 334),
     (aux_sym_config_init_token1, 336), (aux_sym_using_directive_token1, 338),
     (aux_sym__stmt_token1, 340), (aux_sym__stmt_token2, 340), (aux_sym__stmt_token3, 340),
     (aux_sym_if_stmt_token1, 342), (aux_sym_case_stmt_token1, 344), (aux_sym_for_stmt_token1, 346),
     (aux_sym_while_stmt_token1, 348), (aux_sym_repeat_stmt_token1, 350),
     (aux_sym_raise_stmt_token1, 352), (aux_sym_try_stmt_token1, 354),
     (aux_sym_try_stmt_token2, 356), (aux_sym_catch_clause_token1, 356),
     (aux_sym_finally_clause_token1, 356), (sym_ld_rung, 358), (sym_fbd_network, 360),
     (sym_c_style_comment, 3), (sym_pascal_style_comment, 3), (sym_pragma, 3)]"

lemma ts_parse_row_196_scan: "row_scan tokens_63_2 0 ts_parse_row_196 = Some (Suc (Suc (Suc (Suc 0))))"
  unfolding ts_parse_row_196_def by simp

text \<open>Lines 77112 to 77230.\<close>

definition ts_parse_row_197 :: parse_row where
  "ts_parse_row_197 =
    [(sym_ERR_implements_multiple_times, 2978), (sym_ERR_assign_func_call, 7530),
     (sym_ERR_unexpected_this_in_path, 2372), (sym_ERR_unexpected_super_in_path, 2372),
     (sym_ERR_fb_variables_after_method, 1312), (sym_ERR_var_access_not_allowed, 3160),
     (sym_ERR_var_config_not_allowed, 3160), (sym_ERR_var_global_not_allowed, 3160),
     (sym_ERR_method_decl_in_body, 3150), (sym_extern_pragma, 7490), (sym_wasm_pragma, 3150),
     (sym_warn_pragma, 7490), (sym_allow_pragma, 3140), (sym_test_pragma, 7490),
     (sym_once_pragma, 7490), (sym_must_call_pragma, 7490), (sym_export_pragma, 7490),
     (sym_pou_pragma, 7194), (sym_direct_variable, 7675), (sym_deref_expression, 2373),
     (sym_variable, 7599), (sym_var_access, 2373), (sym_in_out_decls, 3160), (sym_var_decls, 3160),
     (sym_retain_var_decls, 3160), (sym_temp_var_decls, 3160), (sym_external_var_decls, 3160),
     (sym_global_var_decls, 2947), (sym_loc_partly_var_decl, 3160), (sym__fb_variables, 752),
     (sym_fb_input_decls, 3160), (sym_fb_output_decls, 3160), (sym_no_retain_var_decls, 3160),
     (sym_fb_body, 10005), (sym_method_decl, 781), (sym_prog_access_decls, 3043), (sym_SFC, 7970),
     (sym_SFC_network, 7612), (sym_initial_step, 7439), (sym_config_init, 3047),
     (sym_using_directive, 277), (sym_variable_access, 7530), (sym_func_call, 2961),
     (sym_stmt_list, 7970), (sym__stmt, 2024), (sym_assign, 3150), (sym_if_stmt, 3150),
     (sym_case_stmt, 3150), (sym_for_stmt, 3150), (sym_while_stmt, 3150), (sym_repeat_stmt, 3150),
     (sym_raise_stmt, 3150), (sym_try_stmt, 3150), (sym_ERR_clause_outside_try, 3150),
     (sym_begin_path_expression, 2943), (sym_invocation, 2934), (sym_any_invocation, 2935),
     (sym_this_invocation, 2641), (sym_super_invocation, 2641), (sym_super_body_invocation, 2935),
     (sym_path_expression, 2627), (sym_field_expression, 2373), (sym_index_expression, 2373),
     (sym_ladder_diagram, 7970), (sym_fb_diagram, 7970),
     (aux_sym_ERR_fb_variables_after_method_repeat1, 752), (aux_sym_func_decl_repeat1, 7194),
     (aux_sym_func_decl_repeat2, 277), (aux_sym_fb_decl_repeat2, 2978),
     (aux_sym_fb_decl_repeat3, 781), (aux_sym_SFC_repeat1, 7612), (aux_sym_stmt_list_repeat1, 2024),
     (aux_sym_ladder_diagram_repeat1, 8009), (aux_sym_fb_diagram_repeat1, 8013),
     (sym_identifier, 298), (aux_sym_ERR_implements_before_extends_token1, 486),
     (aux_sym_ERR_unexpected_this_in_path_token1, 304),
     (aux_sym_ERR_unexpected_super_in_path_token1, 306), (sym_line_comment, 3),
     (anon_sym_LBRACE, 308), (aux_sym_test_pragma_token1, 9), (aux_sym_once_pragma_token1, 11),
     (aux_sym_must_call_pragma_token1, 13), (aux_sym_export_pragma_token1, 15),
     (anon_sym_SEMI, 310), (anon_sym_PERCENT, 312), (aux_sym_input_decls_token1, 314),
     (aux_sym_output_decls_token1, 316), (aux_sym_in_out_decls_token1, 318),
     (aux_sym_var_decls_token1, 320), (aux_sym_temp_var_decls_token1, 322),
     (aux_sym_external_var_decls_token1, 324), (aux_sym_global_var_decls_token1, 326),
     (aux_sym_fb_decl_token4, 388), (aux_sym_method_decl_token1, 330),
     (aux_sym_prog_access_decls_token1, 332), (aux_sym_initial_step_token1, 334),
     (aux_sym_config_init_token1, 336), (aux_sym_using_directive_token1, 338),
     (aux_sym__stmt_token1, 340), (aux_sym__stmt_token2, 340), (aux_sym__stmt_token3, 340),
     (aux_sym_if_stmt_token1, 342), (aux_sym_case_stmt_token1, 344), (aux_sym_for_stmt_token1, 346),
     (aux_sym_while_stmt_token1, 348), (aux_sym_repeat_stmt_token1, 350),
     (aux_sym_raise_stmt_token1, 352), (aux_sym_try_stmt_token1, 354),
     (aux_sym_try_stmt_token2, 356), (aux_sym_catch_clause_token1, 356),
     (aux_sym_finally_clause_token1, 356), (sym_ld_rung, 358), (sym_fbd_network, 360),
     (sym_c_style_comment, 3), (sym_pascal_style_comment, 3), (sym_pragma, 3)]"

lemma ts_parse_row_197_scan: "row_scan tokens_63_2 0 ts_parse_row_197 = Some (Suc (Suc (Suc (Suc 0))))"
  unfolding ts_parse_row_197_def by simp

text \<open>Lines 77231 to 77349.\<close>

definition ts_parse_row_198 :: parse_row where
  "ts_parse_row_198 =
    [(sym_ERR_implements_multiple_times, 138), (sym_ERR_assign_func_call, 7530),
     (sym_ERR_unexpected_this_in_path, 2372), (sym_ERR_unexpected_super_in_path, 2372),
     (sym_ERR_fb_variables_after_method, 1319), (sym_ERR_var_access_not_allowed, 3160),
     (sym_ERR_var_config_not_allowed, 3160), (sym_ERR_var_global_not_allowed, 3160),
     (sym_ERR_method_decl_in_body, 3150), (sym_extern_pragma, 7490), (sym_wasm_pragma, 3150),
     (sym_warn_pragma, 7490), (sym_allow_pragma, 3140), (sym_test_pragma, 7490),
     (sym_once_pragma, 7490), (sym_must_call_pragma, 7490), (sym_export_pragma, 7490),
     (sym_pou_pragma, 7194), (sym_direct_variable, 7675), (sym_deref_expression, 2373),
     (sym_variable, 7599), (sym_var_access, 2373), (sym_in_out_decls, 3160), (sym_var_decls, 3160),
     (sym_retain_var_decls, 3160), (sym_temp_var_decls, 3160), (sym_external_var_decls, 3160),
     (sym_global_var_decls, 2947), (sym_loc_partly_var_decl, 3160), (sym__fb_variables, 782),
     (sym_fb_input_decls, 3160), (sym_fb_output_decls, 3160), (sym_no_retain_var_decls, 3160),
     (sym_fb_body, 10279), (sym_method_decl, 829), (sym_prog_access_decls, 3043), (sym_SFC, 7970),
     (sym_SFC_network, 7612), (sym_initial_step, 7439), (sym_config_init, 3047),
     (sym_using_directive, 213), (sym_variable_access, 7530), (sym_func_call, 2961),
     (sym_stmt_list, 7970), (sym__stmt, 2024), (sym_assign, 3150), (sym_if_stmt, 3150),
     (sym_case_stmt, 3150), (sym_for_stmt, 3150), (sym_while_stmt, 3150), (sym_repeat_stmt, 3150),
     (sym_raise_stmt, 3150), (sym_try_stmt, 3150), (sym_ERR_clause_outside_try, 3150),
     (sym_begin_path_expression, 2943), (sym_invocation, 2934), (sym_any_invocation, 2935),
     (sym_this_invocation, 2641), (sym_super_invocation, 2641), (sym_super_body_invocation, 2935),
     (sym_path_expression, 2627), (sym_field_expression, 2373), (sym_index_expression, 2373),
     (sym_ladder_diagram, 7970), (sym_fb_diagram, 7970),
     (aux_sym_ERR_fb_variables_after_method_repeat1, 782), (aux_sym_func_decl_repeat1, 7194),
     (aux_sym_func_decl_repeat2, 213), (aux_sym_fb_decl_repeat2, 138),
     (aux_sym_fb_decl_repeat3, 829), (aux_sym_SFC_repeat1, 7612), (aux_sym_stmt_list_repeat1, 2024),
     (aux_sym_ladder_diagram_repeat1, 8009), (aux_sym_fb_diagram_repeat1, 8013),
     (sym_identifier, 298), (aux_sym_ERR_implements_before_extends_token1, 486),
     (aux_sym_ERR_unexpected_this_in_path_token1, 304),
     (aux_sym_ERR_unexpected_super_in_path_token1, 306), (sym_line_comment, 3),
     (anon_sym_LBRACE, 308), (aux_sym_test_pragma_token1, 9), (aux_sym_once_pragma_token1, 11),
     (aux_sym_must_call_pragma_token1, 13), (aux_sym_export_pragma_token1, 15),
     (anon_sym_SEMI, 310), (anon_sym_PERCENT, 312), (aux_sym_input_decls_token1, 314),
     (aux_sym_output_decls_token1, 316), (aux_sym_in_out_decls_token1, 318),
     (aux_sym_var_decls_token1, 320), (aux_sym_temp_var_decls_token1, 322),
     (aux_sym_external_var_decls_token1, 324), (aux_sym_global_var_decls_token1, 326),
     (aux_sym_fb_decl_token4, 618), (aux_sym_method_decl_token1, 330),
     (aux_sym_prog_access_decls_token1, 332), (aux_sym_initial_step_token1, 334),
     (aux_sym_config_init_token1, 336), (aux_sym_using_directive_token1, 338),
     (aux_sym__stmt_token1, 340), (aux_sym__stmt_token2, 340), (aux_sym__stmt_token3, 340),
     (aux_sym_if_stmt_token1, 342), (aux_sym_case_stmt_token1, 344), (aux_sym_for_stmt_token1, 346),
     (aux_sym_while_stmt_token1, 348), (aux_sym_repeat_stmt_token1, 350),
     (aux_sym_raise_stmt_token1, 352), (aux_sym_try_stmt_token1, 354),
     (aux_sym_try_stmt_token2, 356), (aux_sym_catch_clause_token1, 356),
     (aux_sym_finally_clause_token1, 356), (sym_ld_rung, 358), (sym_fbd_network, 360),
     (sym_c_style_comment, 3), (sym_pascal_style_comment, 3), (sym_pragma, 3)]"

lemma ts_parse_row_198_scan: "row_scan tokens_63_2 0 ts_parse_row_198 = Some (Suc (Suc (Suc (Suc 0))))"
  unfolding ts_parse_row_198_def by simp

text \<open>Lines 77350 to 77468.\<close>

definition ts_parse_row_199 :: parse_row where
  "ts_parse_row_199 =
    [(sym_ERR_implements_multiple_times, 2978), (sym_ERR_assign_func_call, 7530),
     (sym_ERR_unexpected_this_in_path, 2372), (sym_ERR_unexpected_super_in_path, 2372),
     (sym_ERR_fb_variables_after_method, 1896), (sym_ERR_var_access_not_allowed, 3160),
     (sym_ERR_var_config_not_allowed, 3160), (sym_ERR_var_global_not_allowed, 3160),
     (sym_ERR_method_decl_in_body, 3150), (sym_extern_pragma, 7490), (sym_wasm_pragma, 3150),
     (sym_warn_pragma, 7490), (sym_allow_pragma, 3140), (sym_test_pragma, 7490),
     (sym_once_pragma, 7490), (sym_must_call_pragma, 7490), (sym_export_pragma, 7490),
     (sym_pou_pragma, 7194), (sym_direct_variable, 7675), (sym_deref_expression, 2373),
     (sym_variable, 7599), (sym_var_access, 2373), (sym_in_out_decls, 3160), (sym_var_decls, 3160),
     (sym_retain_var_decls, 3160), (sym_temp_var_decls, 3160), (sym_external_var_decls, 3160),
     (sym_global_var_decls, 2947), (sym_loc_partly_var_decl, 3160), (sym__fb_variables, 424),
     (sym_fb_input_decls, 3160), (sym_fb_output_decls, 3160), (sym_no_retain_var_decls, 3160),
     (sym_fb_body, 8803), (sym_method_decl, 432), (sym_prog_access_decls, 3043), (sym_SFC, 7970),
     (sym_SFC_network, 7612), (sym_initial_step, 7439), (sym_config_init, 3047),
     (sym_using_directive, 273), (sym_variable_access, 7530), (sym_func_call, 2961),
     (sym_stmt_list, 7970), (sym__stmt, 2024), (sym_assign, 3150), (sym_if_stmt, 3150),
     (sym_case_stmt, 3150), (sym_for_stmt, 3150), (sym_while_stmt, 3150), (sym_repeat_stmt, 3150),
     (sym_raise_stmt, 3150), (sym_try_stmt, 3150), (sym_ERR_clause_outside_try, 3150),
     (sym_begin_path_expression, 2943), (sym_invocation, 2934), (sym_any_invocation, 2935),
     (sym_this_invocation, 2641), (sym_super_invocation, 2641), (sym_super_body_invocation, 2935),
     (sym_path_expression, 2627), (sym_field_expression, 2373), (sym_index_expression, 2373),
     (sym_ladder_diagram, 7970), (sym_fb_diagram, 7970),
     (aux_sym_ERR_fb_variables_after_method_repeat1, 424), (aux_sym_func_decl_repeat1, 7194),
     (aux_sym_func_decl_repeat2, 273), (aux_sym_fb_decl_repeat2, 2978),
     (aux_sym_fb_decl_repeat3, 432), (aux_sym_SFC_repeat1, 7612), (aux_sym_stmt_list_repeat1, 2024),
     (aux_sym_ladder_diagram_repeat1, 8009), (aux_sym_fb_diagram_repeat1, 8013),
     (sym_identifier, 298), (aux_sym_ERR_implements_before_extends_token1, 486),
     (aux_sym_ERR_unexpected_this_in_path_token1, 304),
     (aux_sym_ERR_unexpected_super_in_path_token1, 306), (sym_line_comment, 3),
     (anon_sym_LBRACE, 308), (aux_sym_test_pragma_token1, 9), (aux_sym_once_pragma_token1, 11),
     (aux_sym_must_call_pragma_token1, 13), (aux_sym_export_pragma_token1, 15),
     (anon_sym_SEMI, 310), (anon_sym_PERCENT, 312), (aux_sym_input_decls_token1, 314),
     (aux_sym_output_decls_token1, 316), (aux_sym_in_out_decls_token1, 318),
     (aux_sym_var_decls_token1, 320), (aux_sym_temp_var_decls_token1, 322),
     (aux_sym_external_var_decls_token1, 324), (aux_sym_global_var_decls_token1, 326),
     (aux_sym_fb_decl_token4, 410), (aux_sym_method_decl_token1, 330),
     (aux_sym_prog_access_decls_token1, 332), (aux_sym_initial_step_token1, 334),
     (aux_sym_config_init_token1, 336), (aux_sym_using_directive_token1, 338),
     (aux_sym__stmt_token1, 340), (aux_sym__stmt_token2, 340), (aux_sym__stmt_token3, 340),
     (aux_sym_if_stmt_token1, 342), (aux_sym_case_stmt_token1, 344), (aux_sym_for_stmt_token1, 346),
     (aux_sym_while_stmt_token1, 348), (aux_sym_repeat_stmt_token1, 350),
     (aux_sym_raise_stmt_token1, 352), (aux_sym_try_stmt_token1, 354),
     (aux_sym_try_stmt_token2, 356), (aux_sym_catch_clause_token1, 356),
     (aux_sym_finally_clause_token1, 356), (sym_ld_rung, 358), (sym_fbd_network, 360),
     (sym_c_style_comment, 3), (sym_pascal_style_comment, 3), (sym_pragma, 3)]"

lemma ts_parse_row_199_scan: "row_scan tokens_63_2 0 ts_parse_row_199 = Some (Suc (Suc (Suc (Suc 0))))"
  unfolding ts_parse_row_199_def by simp

text \<open>Lines 77469 to 77587.\<close>

definition ts_parse_row_200 :: parse_row where
  "ts_parse_row_200 =
    [(sym_ERR_implements_multiple_times, 2978), (sym_ERR_assign_func_call, 7530),
     (sym_ERR_unexpected_this_in_path, 2372), (sym_ERR_unexpected_super_in_path, 2372),
     (sym_ERR_fb_variables_after_method, 1455), (sym_ERR_var_access_not_allowed, 3160),
     (sym_ERR_var_config_not_allowed, 3160), (sym_ERR_var_global_not_allowed, 3160),
     (sym_ERR_method_decl_in_body, 3150), (sym_extern_pragma, 7490), (sym_wasm_pragma, 3150),
     (sym_warn_pragma, 7490), (sym_allow_pragma, 3140), (sym_test_pragma, 7490),
     (sym_once_pragma, 7490), (sym_must_call_pragma, 7490), (sym_export_pragma, 7490),
     (sym_pou_pragma, 7194), (sym_direct_variable, 7675), (sym_deref_expression, 2373),
     (sym_variable, 7599), (sym_var_access, 2373), (sym_in_out_decls, 3160), (sym_var_decls, 3160),
     (sym_retain_var_decls, 3160), (sym_temp_var_decls, 3160), (sym_external_var_decls, 3160),
     (sym_global_var_decls, 2947), (sym_loc_partly_var_decl, 3160), (sym__fb_variables, 467),
     (sym_fb_input_decls, 3160), (sym_fb_output_decls, 3160), (sym_no_retain_var_decls, 3160),
     (sym_fb_body, 9774), (sym_method_decl, 499), (sym_prog_access_decls, 3043), (sym_SFC, 7970),
     (sym_SFC_network, 7612), (sym_initial_step, 7439), (sym_config_init, 3047),
     (sym_using_directive, 303), (sym_variable_access, 7530), (sym_func_call, 2961),
     (sym_stmt_list, 7970), (sym__stmt, 2024), (sym_assign, 3150), (sym_if_stmt, 3150),
     (sym_case_stmt, 3150), (sym_for_stmt, 3150), (sym_while_stmt, 3150), (sym_repeat_stmt, 3150),
     (sym_raise_stmt, 3150), (sym_try_stmt, 3150), (sym_ERR_clause_outside_try, 3150),
     (sym_begin_path_expression, 2943), (sym_invocation, 2934), (sym_any_invocation, 2935),
     (sym_this_invocation, 2641), (sym_super_invocation, 2641), (sym_super_body_invocation, 2935),
     (sym_path_expression, 2627), (sym_field_expression, 2373), (sym_index_expression, 2373),
     (sym_ladder_diagram, 7970), (sym_fb_diagram, 7970),
     (aux_sym_ERR_fb_variables_after_method_repeat1, 467), (aux_sym_func_decl_repeat1, 7194),
     (aux_sym_func_decl_repeat2, 303), (aux_sym_fb_decl_repeat2, 2978),
     (aux_sym_fb_decl_repeat3, 499), (aux_sym_SFC_repeat1, 7612), (aux_sym_stmt_list_repeat1, 2024),
     (aux_sym_ladder_diagram_repeat1, 8009), (aux_sym_fb_diagram_repeat1, 8013),
     (sym_identifier, 298), (aux_sym_ERR_implements_before_extends_token1, 486),
     (aux_sym_ERR_unexpected_this_in_path_token1, 304),
     (aux_sym_ERR_unexpected_super_in_path_token1, 306), (sym_line_comment, 3),
     (anon_sym_LBRACE, 308), (aux_sym_test_pragma_token1, 9), (aux_sym_once_pragma_token1, 11),
     (aux_sym_must_call_pragma_token1, 13), (aux_sym_export_pragma_token1, 15),
     (anon_sym_SEMI, 310), (anon_sym_PERCENT, 312), (aux_sym_input_decls_token1, 314),
     (aux_sym_output_decls_token1, 316), (aux_sym_in_out_decls_token1, 318),
     (aux_sym_var_decls_token1, 320), (aux_sym_temp_var_decls_token1, 322),
     (aux_sym_external_var_decls_token1, 324), (aux_sym_global_var_decls_token1, 326),
     (aux_sym_fb_decl_token4, 474), (aux_sym_method_decl_token1, 330),
     (aux_sym_prog_access_decls_token1, 332), (aux_sym_initial_step_token1, 334),
     (aux_sym_config_init_token1, 336), (aux_sym_using_directive_token1, 338),
     (aux_sym__stmt_token1, 340), (aux_sym__stmt_token2, 340), (aux_sym__stmt_token3, 340),
     (aux_sym_if_stmt_token1, 342), (aux_sym_case_stmt_token1, 344), (aux_sym_for_stmt_token1, 346),
     (aux_sym_while_stmt_token1, 348), (aux_sym_repeat_stmt_token1, 350),
     (aux_sym_raise_stmt_token1, 352), (aux_sym_try_stmt_token1, 354),
     (aux_sym_try_stmt_token2, 356), (aux_sym_catch_clause_token1, 356),
     (aux_sym_finally_clause_token1, 356), (sym_ld_rung, 358), (sym_fbd_network, 360),
     (sym_c_style_comment, 3), (sym_pascal_style_comment, 3), (sym_pragma, 3)]"

lemma ts_parse_row_200_scan: "row_scan tokens_63_2 0 ts_parse_row_200 = Some (Suc (Suc (Suc (Suc 0))))"
  unfolding ts_parse_row_200_def by simp

text \<open>Lines 77588 to 77706.\<close>

definition ts_parse_row_201 :: parse_row where
  "ts_parse_row_201 =
    [(sym_ERR_implements_multiple_times, 2978), (sym_ERR_assign_func_call, 7530),
     (sym_ERR_unexpected_this_in_path, 2372), (sym_ERR_unexpected_super_in_path, 2372),
     (sym_ERR_fb_variables_after_method, 1882), (sym_ERR_var_access_not_allowed, 3160),
     (sym_ERR_var_config_not_allowed, 3160), (sym_ERR_var_global_not_allowed, 3160),
     (sym_ERR_method_decl_in_body, 3150), (sym_extern_pragma, 7490), (sym_wasm_pragma, 3150),
     (sym_warn_pragma, 7490), (sym_allow_pragma, 3140), (sym_test_pragma, 7490),
     (sym_once_pragma, 7490), (sym_must_call_pragma, 7490), (sym_export_pragma, 7490),
     (sym_pou_pragma, 7194), (sym_direct_variable, 7675), (sym_deref_expression, 2373),
     (sym_variable, 7599), (sym_var_access, 2373), (sym_in_out_decls, 3160), (sym_var_decls, 3160),
     (sym_retain_var_decls, 3160), (sym_temp_var_decls, 3160), (sym_external_var_decls, 3160),
     (sym_global_var_decls, 2947), (sym_loc_partly_var_decl, 3160), (sym__fb_variables, 363),
     (sym_fb_input_decls, 3160), (sym_fb_output_decls, 3160), (sym_no_retain_var_decls, 3160),
     (sym_fb_body, 8787), (sym_method_decl, 868), (sym_prog_access_decls, 3043), (sym_SFC, 7970),
     (sym_SFC_network, 7612), (sym_initial_step, 7439), (sym_config_init, 3047),
     (sym_using_directive, 287), (sym_variable_access, 7530), (sym_func_call, 2961),
     (sym_stmt_list, 7970), (sym__stmt, 2024), (sym_assign, 3150), (sym_if_stmt, 3150),
     (sym_case_stmt, 3150), (sym_for_stmt, 3150), (sym_while_stmt, 3150), (sym_repeat_stmt, 3150),
     (sym_raise_stmt, 3150), (sym_try_stmt, 3150), (sym_ERR_clause_outside_try, 3150),
     (sym_begin_path_expression, 2943), (sym_invocation, 2934), (sym_any_invocation, 2935),
     (sym_this_invocation, 2641), (sym_super_invocation, 2641), (sym_super_body_invocation, 2935),
     (sym_path_expression, 2627), (sym_field_expression, 2373), (sym_index_expression, 2373),
     (sym_ladder_diagram, 7970), (sym_fb_diagram, 7970),
     (aux_sym_ERR_fb_variables_after_method_repeat1, 363), (aux_sym_func_decl_repeat1, 7194),
     (aux_sym_func_decl_repeat2, 287), (aux_sym_fb_decl_repeat2, 2978),
     (aux_sym_fb_decl_repeat3, 868), (aux_sym_SFC_repeat1, 7612), (aux_sym_stmt_list_repeat1, 2024),
     (aux_sym_ladder_diagram_repeat1, 8009), (aux_sym_fb_diagram_repeat1, 8013),
     (sym_identifier, 298), (aux_sym_ERR_implements_before_extends_token1, 486),
     (aux_sym_ERR_unexpected_this_in_path_token1, 304),
     (aux_sym_ERR_unexpected_super_in_path_token1, 306), (sym_line_comment, 3),
     (anon_sym_LBRACE, 308), (aux_sym_test_pragma_token1, 9), (aux_sym_once_pragma_token1, 11),
     (aux_sym_must_call_pragma_token1, 13), (aux_sym_export_pragma_token1, 15),
     (anon_sym_SEMI, 310), (anon_sym_PERCENT, 312), (aux_sym_input_decls_token1, 314),
     (aux_sym_output_decls_token1, 316), (aux_sym_in_out_decls_token1, 318),
     (aux_sym_var_decls_token1, 320), (aux_sym_temp_var_decls_token1, 322),
     (aux_sym_external_var_decls_token1, 324), (aux_sym_global_var_decls_token1, 326),
     (aux_sym_fb_decl_token4, 440), (aux_sym_method_decl_token1, 330),
     (aux_sym_prog_access_decls_token1, 332), (aux_sym_initial_step_token1, 334),
     (aux_sym_config_init_token1, 336), (aux_sym_using_directive_token1, 338),
     (aux_sym__stmt_token1, 340), (aux_sym__stmt_token2, 340), (aux_sym__stmt_token3, 340),
     (aux_sym_if_stmt_token1, 342), (aux_sym_case_stmt_token1, 344), (aux_sym_for_stmt_token1, 346),
     (aux_sym_while_stmt_token1, 348), (aux_sym_repeat_stmt_token1, 350),
     (aux_sym_raise_stmt_token1, 352), (aux_sym_try_stmt_token1, 354),
     (aux_sym_try_stmt_token2, 356), (aux_sym_catch_clause_token1, 356),
     (aux_sym_finally_clause_token1, 356), (sym_ld_rung, 358), (sym_fbd_network, 360),
     (sym_c_style_comment, 3), (sym_pascal_style_comment, 3), (sym_pragma, 3)]"

lemma ts_parse_row_201_scan: "row_scan tokens_63_2 0 ts_parse_row_201 = Some (Suc (Suc (Suc (Suc 0))))"
  unfolding ts_parse_row_201_def by simp

text \<open>Lines 77707 to 77825.\<close>

definition ts_parse_row_202 :: parse_row where
  "ts_parse_row_202 =
    [(sym_ERR_assign_func_call, 7508), (sym_ERR_unexpected_this_in_path, 2012),
     (sym_ERR_unexpected_super_in_path, 2012), (sym_ERR_method_decl_in_body, 2284),
     (sym_extern_pragma, 7490), (sym_wasm_pragma, 2284), (sym_warn_pragma, 7490),
     (sym_allow_pragma, 2286), (sym_test_pragma, 7490), (sym_once_pragma, 7490),
     (sym_must_call_pragma, 7490), (sym_export_pragma, 7490), (sym_pou_pragma, 7207),
     (sym_direct_variable, 7675), (sym_deref_expression, 2013), (sym_variable, 7599),
     (sym_var_access, 2013), (sym_method_decl, 2291), (sym_variable_access, 7508),
     (sym_func_call, 2045), (sym__stmt, 208), (sym_assign, 2284), (sym_if_stmt, 2284),
     (sym_case_stmt, 2284), (sym_case_body, 2365), (sym_for_stmt, 2284), (sym_while_stmt, 2284),
     (sym_repeat_stmt, 2284), (sym_raise_stmt, 2284), (sym_try_stmt, 2284),
     (sym_ERR_clause_outside_try, 2284), (sym_begin_path_expression, 2031), (sym_invocation, 2035),
     (sym_any_invocation, 2036), (sym_this_invocation, 2015), (sym_super_invocation, 2015),
     (sym_super_body_invocation, 2036), (sym_path_expression, 1921), (sym_field_expression, 2013),
     (sym_index_expression, 2013), (aux_sym_func_decl_repeat1, 7207),
     (aux_sym_stmt_list_repeat1, 208), (sym_identifier, 620),
     (aux_sym_ERR_unexpected_this_in_path_token1, 623),
     (aux_sym_ERR_unexpected_super_in_path_token1, 626), (sym_line_comment, 3),
     (anon_sym_LBRACE, 629), (anon_sym_LPAREN, 631), (aux_sym_test_pragma_token1, 9),
     (aux_sym_once_pragma_token1, 11), (aux_sym_must_call_pragma_token1, 13),
     (aux_sym_export_pragma_token1, 15), (sym_unsigned_int, 633), (sym__explicit_signed_int, 633),
     (sym_binary_int, 631), (sym_octal_int, 631), (sym_hex_int, 631),
     (sym__explicit_signed_real, 631), (sym_real_value, 631),
     (aux_sym_bool_literal_with_string_token1, 631), (aux_sym_bool_literal_with_string_token2, 633),
     (aux_sym_bool_literal_with_string_token3, 633), (sym_s_byte_char_str, 631),
     (sym_d_byte_char_str, 631), (aux_sym_time_token1, 631), (anon_sym_PLUS, 633),
     (anon_sym_DASH, 633), (aux_sym_ltime_token1, 631), (aux_sym_tod_token1, 631),
     (aux_sym_ltod_token1, 631), (aux_sym_short_date_token1, 631), (aux_sym_long_date_token1, 631),
     (aux_sym_short_date_and_time_token1, 631), (aux_sym_long_date_and_time_token1, 631),
     (aux_sym_sign_int_type_name_token1, 633), (aux_sym_sign_int_type_name_token2, 633),
     (aux_sym_sign_int_type_name_token3, 633), (aux_sym_sign_int_type_name_token4, 633),
     (aux_sym_unsign_int_type_name_token1, 633), (aux_sym_unsign_int_type_name_token2, 633),
     (aux_sym_unsign_int_type_name_token3, 633), (aux_sym_unsign_int_type_name_token4, 633),
     (aux_sym_real_type_name_token1, 633), (aux_sym_real_type_name_token2, 633),
     (aux_sym_string_name_token1, 633), (aux_sym_char_name_token1, 633),
     (aux_sym_multibits_type_name_token1, 633), (aux_sym_multibits_type_name_token2, 633),
     (aux_sym_multibits_type_name_token3, 633), (aux_sym_multibits_type_name_token4, 633),
     (anon_sym_SEMI, 635), (anon_sym_PERCENT, 637), (aux_sym_ref_value_token1, 633),
     (aux_sym_ref_addr_token1, 633), (anon_sym_DOT_DOT_DOT, 631), (aux_sym_method_decl_token1, 640),
     (aux_sym_unary_token1, 633), (aux_sym__stmt_token1, 642), (aux_sym__stmt_token2, 642),
     (aux_sym__stmt_token3, 642), (aux_sym_if_stmt_token1, 644), (aux_sym_if_stmt_token3, 633),
     (aux_sym_case_stmt_token1, 646), (aux_sym_case_stmt_token2, 633),
     (aux_sym_for_stmt_token1, 648), (aux_sym_while_stmt_token1, 650),
     (aux_sym_repeat_stmt_token1, 652), (aux_sym_raise_stmt_token1, 654),
     (aux_sym_try_stmt_token1, 656), (aux_sym_try_stmt_token2, 658),
     (aux_sym_catch_clause_token1, 658), (aux_sym_finally_clause_token1, 658),
     (sym_c_style_comment, 3), (sym_pascal_style_comment, 3), (sym_pragma, 3),
     (sym__minus_before_base, 631), (sym__plus_before_base, 631)]"

lemma ts_parse_row_202_scan: "row_scan tokens_4_1 0 ts_parse_row_202 = Some (Suc (Suc (Suc (Suc (Suc (Suc 0))))))"
  unfolding ts_parse_row_202_def by simp

text \<open>Lines 77826 to 77944.\<close>

definition ts_parse_row_203 :: parse_row where
  "ts_parse_row_203 =
    [(sym_ERR_implements_multiple_times, 2978), (sym_ERR_assign_func_call, 7530),
     (sym_ERR_unexpected_this_in_path, 2372), (sym_ERR_unexpected_super_in_path, 2372),
     (sym_ERR_fb_variables_after_method, 1951), (sym_ERR_var_access_not_allowed, 3160),
     (sym_ERR_var_config_not_allowed, 3160), (sym_ERR_var_global_not_allowed, 3160),
     (sym_ERR_method_decl_in_body, 3150), (sym_extern_pragma, 7490), (sym_wasm_pragma, 3150),
     (sym_warn_pragma, 7490), (sym_allow_pragma, 3140), (sym_test_pragma, 7490),
     (sym_once_pragma, 7490), (sym_must_call_pragma, 7490), (sym_export_pragma, 7490),
     (sym_pou_pragma, 7194), (sym_direct_variable, 7675), (sym_deref_expression, 2373),
     (sym_variable, 7599), (sym_var_access, 2373), (sym_in_out_decls, 3160), (sym_var_decls, 3160),
     (sym_retain_var_decls, 3160), (sym_temp_var_decls, 3160), (sym_external_var_decls, 3160),
     (sym_global_var_decls, 2947), (sym_loc_partly_var_decl, 3160), (sym__fb_variables, 466),
     (sym_fb_input_decls, 3160), (sym_fb_output_decls, 3160), (sym_no_retain_var_decls, 3160),
     (sym_fb_body, 9143), (sym_method_decl, 470), (sym_prog_access_decls, 3043), (sym_SFC, 7970),
     (sym_SFC_network, 7612), (sym_initial_step, 7439), (sym_config_init, 3047),
     (sym_using_directive, 211), (sym_variable_access, 7530), (sym_func_call, 2961),
     (sym_stmt_list, 7970), (sym__stmt, 2024), (sym_assign, 3150), (sym_if_stmt, 3150),
     (sym_case_stmt, 3150), (sym_for_stmt, 3150), (sym_while_stmt, 3150), (sym_repeat_stmt, 3150),
     (sym_raise_stmt, 3150), (sym_try_stmt, 3150), (sym_ERR_clause_outside_try, 3150),
     (sym_begin_path_expression, 2943), (sym_invocation, 2934), (sym_any_invocation, 2935),
     (sym_this_invocation, 2641), (sym_super_invocation, 2641), (sym_super_body_invocation, 2935),
     (sym_path_expression, 2627), (sym_field_expression, 2373), (sym_index_expression, 2373),
     (sym_ladder_diagram, 7970), (sym_fb_diagram, 7970),
     (aux_sym_ERR_fb_variables_after_method_repeat1, 466), (aux_sym_func_decl_repeat1, 7194),
     (aux_sym_func_decl_repeat2, 211), (aux_sym_fb_decl_repeat2, 2978),
     (aux_sym_fb_decl_repeat3, 470), (aux_sym_SFC_repeat1, 7612), (aux_sym_stmt_list_repeat1, 2024),
     (aux_sym_ladder_diagram_repeat1, 8009), (aux_sym_fb_diagram_repeat1, 8013),
     (sym_identifier, 298), (aux_sym_ERR_implements_before_extends_token1, 486),
     (aux_sym_ERR_unexpected_this_in_path_token1, 304),
     (aux_sym_ERR_unexpected_super_in_path_token1, 306), (sym_line_comment, 3),
     (anon_sym_LBRACE, 308), (aux_sym_test_pragma_token1, 9), (aux_sym_once_pragma_token1, 11),
     (aux_sym_must_call_pragma_token1, 13), (aux_sym_export_pragma_token1, 15),
     (anon_sym_SEMI, 310), (anon_sym_PERCENT, 312), (aux_sym_input_decls_token1, 314),
     (aux_sym_output_decls_token1, 316), (aux_sym_in_out_decls_token1, 318),
     (aux_sym_var_decls_token1, 320), (aux_sym_temp_var_decls_token1, 322),
     (aux_sym_external_var_decls_token1, 324), (aux_sym_global_var_decls_token1, 326),
     (aux_sym_fb_decl_token4, 660), (aux_sym_method_decl_token1, 330),
     (aux_sym_prog_access_decls_token1, 332), (aux_sym_initial_step_token1, 334),
     (aux_sym_config_init_token1, 336), (aux_sym_using_directive_token1, 338),
     (aux_sym__stmt_token1, 340), (aux_sym__stmt_token2, 340), (aux_sym__stmt_token3, 340),
     (aux_sym_if_stmt_token1, 342), (aux_sym_case_stmt_token1, 344), (aux_sym_for_stmt_token1, 346),
     (aux_sym_while_stmt_token1, 348), (aux_sym_repeat_stmt_token1, 350),
     (aux_sym_raise_stmt_token1, 352), (aux_sym_try_stmt_token1, 354),
     (aux_sym_try_stmt_token2, 356), (aux_sym_catch_clause_token1, 356),
     (aux_sym_finally_clause_token1, 356), (sym_ld_rung, 358), (sym_fbd_network, 360),
     (sym_c_style_comment, 3), (sym_pascal_style_comment, 3), (sym_pragma, 3)]"

lemma ts_parse_row_203_scan: "row_scan tokens_63_2 0 ts_parse_row_203 = Some (Suc (Suc (Suc (Suc 0))))"
  unfolding ts_parse_row_203_def by simp

text \<open>Lines 77945 to 78063.\<close>

definition ts_parse_row_204 :: parse_row where
  "ts_parse_row_204 =
    [(sym_ERR_implements_multiple_times, 2978), (sym_ERR_assign_func_call, 7530),
     (sym_ERR_unexpected_this_in_path, 2372), (sym_ERR_unexpected_super_in_path, 2372),
     (sym_ERR_fb_variables_after_method, 1966), (sym_ERR_var_access_not_allowed, 3160),
     (sym_ERR_var_config_not_allowed, 3160), (sym_ERR_var_global_not_allowed, 3160),
     (sym_ERR_method_decl_in_body, 3150), (sym_extern_pragma, 7490), (sym_wasm_pragma, 3150),
     (sym_warn_pragma, 7490), (sym_allow_pragma, 3140), (sym_test_pragma, 7490),
     (sym_once_pragma, 7490), (sym_must_call_pragma, 7490), (sym_export_pragma, 7490),
     (sym_pou_pragma, 7194), (sym_direct_variable, 7675), (sym_deref_expression, 2373),
     (sym_variable, 7599), (sym_var_access, 2373), (sym_in_out_decls, 3160), (sym_var_decls, 3160),
     (sym_retain_var_decls, 3160), (sym_temp_var_decls, 3160), (sym_external_var_decls, 3160),
     (sym_global_var_decls, 2947), (sym_loc_partly_var_decl, 3160), (sym__fb_variables, 487),
     (sym_fb_input_decls, 3160), (sym_fb_output_decls, 3160), (sym_no_retain_var_decls, 3160),
     (sym_fb_body, 9222), (sym_method_decl, 502), (sym_prog_access_decls, 3043), (sym_SFC, 7970),
     (sym_SFC_network, 7612), (sym_initial_step, 7439), (sym_config_init, 3047),
     (sym_using_directive, 295), (sym_variable_access, 7530), (sym_func_call, 2961),
     (sym_stmt_list, 7970), (sym__stmt, 2024), (sym_assign, 3150), (sym_if_stmt, 3150),
     (sym_case_stmt, 3150), (sym_for_stmt, 3150), (sym_while_stmt, 3150), (sym_repeat_stmt, 3150),
     (sym_raise_stmt, 3150), (sym_try_stmt, 3150), (sym_ERR_clause_outside_try, 3150),
     (sym_begin_path_expression, 2943), (sym_invocation, 2934), (sym_any_invocation, 2935),
     (sym_this_invocation, 2641), (sym_super_invocation, 2641), (sym_super_body_invocation, 2935),
     (sym_path_expression, 2627), (sym_field_expression, 2373), (sym_index_expression, 2373),
     (sym_ladder_diagram, 7970), (sym_fb_diagram, 7970),
     (aux_sym_ERR_fb_variables_after_method_repeat1, 487), (aux_sym_func_decl_repeat1, 7194),
     (aux_sym_func_decl_repeat2, 295), (aux_sym_fb_decl_repeat2, 2978),
     (aux_sym_fb_decl_repeat3, 502), (aux_sym_SFC_repeat1, 7612), (aux_sym_stmt_list_repeat1, 2024),
     (aux_sym_ladder_diagram_repeat1, 8009), (aux_sym_fb_diagram_repeat1, 8013),
     (sym_identifier, 298), (aux_sym_ERR_implements_before_extends_token1, 486),
     (aux_sym_ERR_unexpected_this_in_path_token1, 304),
     (aux_sym_ERR_unexpected_super_in_path_token1, 306), (sym_line_comment, 3),
     (anon_sym_LBRACE, 308), (aux_sym_test_pragma_token1, 9), (aux_sym_once_pragma_token1, 11),
     (aux_sym_must_call_pragma_token1, 13), (aux_sym_export_pragma_token1, 15),
     (anon_sym_SEMI, 310), (anon_sym_PERCENT, 312), (aux_sym_input_decls_token1, 314),
     (aux_sym_output_decls_token1, 316), (aux_sym_in_out_decls_token1, 318),
     (aux_sym_var_decls_token1, 320), (aux_sym_temp_var_decls_token1, 322),
     (aux_sym_external_var_decls_token1, 324), (aux_sym_global_var_decls_token1, 326),
     (aux_sym_fb_decl_token4, 484), (aux_sym_method_decl_token1, 330),
     (aux_sym_prog_access_decls_token1, 332), (aux_sym_initial_step_token1, 334),
     (aux_sym_config_init_token1, 336), (aux_sym_using_directive_token1, 338),
     (aux_sym__stmt_token1, 340), (aux_sym__stmt_token2, 340), (aux_sym__stmt_token3, 340),
     (aux_sym_if_stmt_token1, 342), (aux_sym_case_stmt_token1, 344), (aux_sym_for_stmt_token1, 346),
     (aux_sym_while_stmt_token1, 348), (aux_sym_repeat_stmt_token1, 350),
     (aux_sym_raise_stmt_token1, 352), (aux_sym_try_stmt_token1, 354),
     (aux_sym_try_stmt_token2, 356), (aux_sym_catch_clause_token1, 356),
     (aux_sym_finally_clause_token1, 356), (sym_ld_rung, 358), (sym_fbd_network, 360),
     (sym_c_style_comment, 3), (sym_pascal_style_comment, 3), (sym_pragma, 3)]"

lemma ts_parse_row_204_scan: "row_scan tokens_63_2 0 ts_parse_row_204 = Some (Suc (Suc (Suc (Suc 0))))"
  unfolding ts_parse_row_204_def by simp

text \<open>Lines 78064 to 78182.\<close>

definition ts_parse_row_205 :: parse_row where
  "ts_parse_row_205 =
    [(sym_ERR_implements_multiple_times, 130), (sym_ERR_assign_func_call, 7530),
     (sym_ERR_unexpected_this_in_path, 2372), (sym_ERR_unexpected_super_in_path, 2372),
     (sym_ERR_fb_variables_after_method, 1974), (sym_ERR_var_access_not_allowed, 3160),
     (sym_ERR_var_config_not_allowed, 3160), (sym_ERR_var_global_not_allowed, 3160),
     (sym_ERR_method_decl_in_body, 3150), (sym_extern_pragma, 7490), (sym_wasm_pragma, 3150),
     (sym_warn_pragma, 7490), (sym_allow_pragma, 3140), (sym_test_pragma, 7490),
     (sym_once_pragma, 7490), (sym_must_call_pragma, 7490), (sym_export_pragma, 7490),
     (sym_pou_pragma, 7194), (sym_direct_variable, 7675), (sym_deref_expression, 2373),
     (sym_variable, 7599), (sym_var_access, 2373), (sym_in_out_decls, 3160), (sym_var_decls, 3160),
     (sym_retain_var_decls, 3160), (sym_temp_var_decls, 3160), (sym_external_var_decls, 3160),
     (sym_global_var_decls, 2947), (sym_loc_partly_var_decl, 3160), (sym__fb_variables, 507),
     (sym_fb_input_decls, 3160), (sym_fb_output_decls, 3160), (sym_no_retain_var_decls, 3160),
     (sym_fb_body, 9303), (sym_method_decl, 532), (sym_prog_access_decls, 3043), (sym_SFC, 7970),
     (sym_SFC_network, 7612), (sym_initial_step, 7439), (sym_config_init, 3047),
     (sym_using_directive, 220), (sym_variable_access, 7530), (sym_func_call, 2961),
     (sym_stmt_list, 7970), (sym__stmt, 2024), (sym_assign, 3150), (sym_if_stmt, 3150),
     (sym_case_stmt, 3150), (sym_for_stmt, 3150), (sym_while_stmt, 3150), (sym_repeat_stmt, 3150),
     (sym_raise_stmt, 3150), (sym_try_stmt, 3150), (sym_ERR_clause_outside_try, 3150),
     (sym_begin_path_expression, 2943), (sym_invocation, 2934), (sym_any_invocation, 2935),
     (sym_this_invocation, 2641), (sym_super_invocation, 2641), (sym_super_body_invocation, 2935),
     (sym_path_expression, 2627), (sym_field_expression, 2373), (sym_index_expression, 2373),
     (sym_ladder_diagram, 7970), (sym_fb_diagram, 7970),
     (aux_sym_ERR_fb_variables_after_method_repeat1, 507), (aux_sym_func_decl_repeat1, 7194),
     (aux_sym_func_decl_repeat2, 220), (aux_sym_fb_decl_repeat2, 130),
     (aux_sym_fb_decl_repeat3, 532), (aux_sym_SFC_repeat1, 7612), (aux_sym_stmt_list_repeat1, 2024),
     (aux_sym_ladder_diagram_repeat1, 8009), (aux_sym_fb_diagram_repeat1, 8013),
     (sym_identifier, 298), (aux_sym_ERR_implements_before_extends_token1, 486),
     (aux_sym_ERR_unexpected_this_in_path_token1, 304),
     (aux_sym_ERR_unexpected_super_in_path_token1, 306), (sym_line_comment, 3),
     (anon_sym_LBRACE, 308), (aux_sym_test_pragma_token1, 9), (aux_sym_once_pragma_token1, 11),
     (aux_sym_must_call_pragma_token1, 13), (aux_sym_export_pragma_token1, 15),
     (anon_sym_SEMI, 310), (anon_sym_PERCENT, 312), (aux_sym_input_decls_token1, 314),
     (aux_sym_output_decls_token1, 316), (aux_sym_in_out_decls_token1, 318),
     (aux_sym_var_decls_token1, 320), (aux_sym_temp_var_decls_token1, 322),
     (aux_sym_external_var_decls_token1, 324), (aux_sym_global_var_decls_token1, 326),
     (aux_sym_fb_decl_token4, 662), (aux_sym_method_decl_token1, 330),
     (aux_sym_prog_access_decls_token1, 332), (aux_sym_initial_step_token1, 334),
     (aux_sym_config_init_token1, 336), (aux_sym_using_directive_token1, 338),
     (aux_sym__stmt_token1, 340), (aux_sym__stmt_token2, 340), (aux_sym__stmt_token3, 340),
     (aux_sym_if_stmt_token1, 342), (aux_sym_case_stmt_token1, 344), (aux_sym_for_stmt_token1, 346),
     (aux_sym_while_stmt_token1, 348), (aux_sym_repeat_stmt_token1, 350),
     (aux_sym_raise_stmt_token1, 352), (aux_sym_try_stmt_token1, 354),
     (aux_sym_try_stmt_token2, 356), (aux_sym_catch_clause_token1, 356),
     (aux_sym_finally_clause_token1, 356), (sym_ld_rung, 358), (sym_fbd_network, 360),
     (sym_c_style_comment, 3), (sym_pascal_style_comment, 3), (sym_pragma, 3)]"

lemma ts_parse_row_205_scan: "row_scan tokens_63_2 0 ts_parse_row_205 = Some (Suc (Suc (Suc (Suc 0))))"
  unfolding ts_parse_row_205_def by simp

text \<open>Lines 78183 to 78301.\<close>

definition ts_parse_row_206 :: parse_row where
  "ts_parse_row_206 =
    [(sym_ERR_implements_multiple_times, 2978), (sym_ERR_assign_func_call, 7530),
     (sym_ERR_unexpected_this_in_path, 2372), (sym_ERR_unexpected_super_in_path, 2372),
     (sym_ERR_fb_variables_after_method, 1230), (sym_ERR_var_access_not_allowed, 3160),
     (sym_ERR_var_config_not_allowed, 3160), (sym_ERR_var_global_not_allowed, 3160),
     (sym_ERR_method_decl_in_body, 3150), (sym_extern_pragma, 7490), (sym_wasm_pragma, 3150),
     (sym_warn_pragma, 7490), (sym_allow_pragma, 3140), (sym_test_pragma, 7490),
     (sym_once_pragma, 7490), (sym_must_call_pragma, 7490), (sym_export_pragma, 7490),
     (sym_pou_pragma, 7194), (sym_direct_variable, 7675), (sym_deref_expression, 2373),
     (sym_variable, 7599), (sym_var_access, 2373), (sym_in_out_decls, 3160), (sym_var_decls, 3160),
     (sym_retain_var_decls, 3160), (sym_temp_var_decls, 3160), (sym_external_var_decls, 3160),
     (sym_global_var_decls, 2947), (sym_loc_partly_var_decl, 3160), (sym__fb_variables, 577),
     (sym_fb_input_decls, 3160), (sym_fb_output_decls, 3160), (sym_no_retain_var_decls, 3160),
     (sym_fb_body, 9408), (sym_method_decl, 589), (sym_prog_access_decls, 3043), (sym_SFC, 7970),
     (sym_SFC_network, 7612), (sym_initial_step, 7439), (sym_config_init, 3047),
     (sym_using_directive, 234), (sym_variable_access, 7530), (sym_func_call, 2961),
     (sym_stmt_list, 7970), (sym__stmt, 2024), (sym_assign, 3150), (sym_if_stmt, 3150),
     (sym_case_stmt, 3150), (sym_for_stmt, 3150), (sym_while_stmt, 3150), (sym_repeat_stmt, 3150),
     (sym_raise_stmt, 3150), (sym_try_stmt, 3150), (sym_ERR_clause_outside_try, 3150),
     (sym_begin_path_expression, 2943), (sym_invocation, 2934), (sym_any_invocation, 2935),
     (sym_this_invocation, 2641), (sym_super_invocation, 2641), (sym_super_body_invocation, 2935),
     (sym_path_expression, 2627), (sym_field_expression, 2373), (sym_index_expression, 2373),
     (sym_ladder_diagram, 7970), (sym_fb_diagram, 7970),
     (aux_sym_ERR_fb_variables_after_method_repeat1, 577), (aux_sym_func_decl_repeat1, 7194),
     (aux_sym_func_decl_repeat2, 234), (aux_sym_fb_decl_repeat2, 2978),
     (aux_sym_fb_decl_repeat3, 589), (aux_sym_SFC_repeat1, 7612), (aux_sym_stmt_list_repeat1, 2024),
     (aux_sym_ladder_diagram_repeat1, 8009), (aux_sym_fb_diagram_repeat1, 8013),
     (sym_identifier, 298), (aux_sym_ERR_implements_before_extends_token1, 486),
     (aux_sym_ERR_unexpected_this_in_path_token1, 304),
     (aux_sym_ERR_unexpected_super_in_path_token1, 306), (sym_line_comment, 3),
     (anon_sym_LBRACE, 308), (aux_sym_test_pragma_token1, 9), (aux_sym_once_pragma_token1, 11),
     (aux_sym_must_call_pragma_token1, 13), (aux_sym_export_pragma_token1, 15),
     (anon_sym_SEMI, 310), (anon_sym_PERCENT, 312), (aux_sym_input_decls_token1, 314),
     (aux_sym_output_decls_token1, 316), (aux_sym_in_out_decls_token1, 318),
     (aux_sym_var_decls_token1, 320), (aux_sym_temp_var_decls_token1, 322),
     (aux_sym_external_var_decls_token1, 324), (aux_sym_global_var_decls_token1, 326),
     (aux_sym_fb_decl_token4, 664), (aux_sym_method_decl_token1, 330),
     (aux_sym_prog_access_decls_token1, 332), (aux_sym_initial_step_token1, 334),
     (aux_sym_config_init_token1, 336), (aux_sym_using_directive_token1, 338),
     (aux_sym__stmt_token1, 340), (aux_sym__stmt_token2, 340), (aux_sym__stmt_token3, 340),
     (aux_sym_if_stmt_token1, 342), (aux_sym_case_stmt_token1, 344), (aux_sym_for_stmt_token1, 346),
     (aux_sym_while_stmt_token1, 348), (aux_sym_repeat_stmt_token1, 350),
     (aux_sym_raise_stmt_token1, 352), (aux_sym_try_stmt_token1, 354),
     (aux_sym_try_stmt_token2, 356), (aux_sym_catch_clause_token1, 356),
     (aux_sym_finally_clause_token1, 356), (sym_ld_rung, 358), (sym_fbd_network, 360),
     (sym_c_style_comment, 3), (sym_pascal_style_comment, 3), (sym_pragma, 3)]"

lemma ts_parse_row_206_scan: "row_scan tokens_63_2 0 ts_parse_row_206 = Some (Suc (Suc (Suc (Suc 0))))"
  unfolding ts_parse_row_206_def by simp

text \<open>Lines 78302 to 78419.\<close>

definition ts_parse_row_207 :: parse_row where
  "ts_parse_row_207 =
    [(sym_ERR_assign_func_call, 7508), (sym_ERR_unexpected_this_in_path, 2012),
     (sym_ERR_unexpected_super_in_path, 2012), (sym_ERR_method_decl_in_body, 2284),
     (sym_extern_pragma, 7490), (sym_wasm_pragma, 2284), (sym_warn_pragma, 7490),
     (sym_allow_pragma, 2286), (sym_test_pragma, 7490), (sym_once_pragma, 7490),
     (sym_must_call_pragma, 7490), (sym_export_pragma, 7490), (sym_pou_pragma, 7207),
     (sym_direct_variable, 7675), (sym_deref_expression, 2013), (sym_variable, 7599),
     (sym_var_access, 2013), (sym_method_decl, 2291), (sym_variable_access, 7508),
     (sym_func_call, 2045), (sym__stmt, 207), (sym_assign, 2284), (sym_if_stmt, 2284),
     (sym_case_stmt, 2284), (sym_for_stmt, 2284), (sym_while_stmt, 2284), (sym_repeat_stmt, 2284),
     (sym_raise_stmt, 2284), (sym_try_stmt, 2284), (sym_ERR_clause_outside_try, 2284),
     (sym_begin_path_expression, 2031), (sym_invocation, 2035), (sym_any_invocation, 2036),
     (sym_this_invocation, 2015), (sym_super_invocation, 2015), (sym_super_body_invocation, 2036),
     (sym_path_expression, 1921), (sym_field_expression, 2013), (sym_index_expression, 2013),
     (aux_sym_func_decl_repeat1, 7207), (aux_sym_stmt_list_repeat1, 207), (sym_identifier, 666),
     (aux_sym_ERR_unexpected_this_in_path_token1, 669),
     (aux_sym_ERR_unexpected_super_in_path_token1, 672), (sym_line_comment, 3),
     (anon_sym_LBRACE, 675), (anon_sym_LPAREN, 678), (aux_sym_test_pragma_token1, 680),
     (aux_sym_once_pragma_token1, 683), (aux_sym_must_call_pragma_token1, 686),
     (aux_sym_export_pragma_token1, 689), (sym_unsigned_int, 692), (sym__explicit_signed_int, 692),
     (sym_binary_int, 678), (sym_octal_int, 678), (sym_hex_int, 678),
     (sym__explicit_signed_real, 678), (sym_real_value, 678),
     (aux_sym_bool_literal_with_string_token1, 678), (aux_sym_bool_literal_with_string_token2, 692),
     (aux_sym_bool_literal_with_string_token3, 692), (sym_s_byte_char_str, 678),
     (sym_d_byte_char_str, 678), (aux_sym_time_token1, 678), (anon_sym_PLUS, 692),
     (anon_sym_DASH, 692), (aux_sym_ltime_token1, 678), (aux_sym_tod_token1, 678),
     (aux_sym_ltod_token1, 678), (aux_sym_short_date_token1, 678), (aux_sym_long_date_token1, 678),
     (aux_sym_short_date_and_time_token1, 678), (aux_sym_long_date_and_time_token1, 678),
     (aux_sym_sign_int_type_name_token1, 692), (aux_sym_sign_int_type_name_token2, 692),
     (aux_sym_sign_int_type_name_token3, 692), (aux_sym_sign_int_type_name_token4, 692),
     (aux_sym_unsign_int_type_name_token1, 692), (aux_sym_unsign_int_type_name_token2, 692),
     (aux_sym_unsign_int_type_name_token3, 692), (aux_sym_unsign_int_type_name_token4, 692),
     (aux_sym_real_type_name_token1, 692), (aux_sym_real_type_name_token2, 692),
     (aux_sym_string_name_token1, 692), (aux_sym_char_name_token1, 692),
     (aux_sym_multibits_type_name_token1, 692), (aux_sym_multibits_type_name_token2, 692),
     (aux_sym_multibits_type_name_token3, 692), (aux_sym_multibits_type_name_token4, 692),
     (anon_sym_SEMI, 694), (anon_sym_PERCENT, 697), (aux_sym_ref_value_token1, 692),
     (aux_sym_ref_addr_token1, 692), (anon_sym_DOT_DOT_DOT, 678), (aux_sym_method_decl_token1, 700),
     (aux_sym_unary_token1, 692), (aux_sym__stmt_token1, 703), (aux_sym__stmt_token2, 703),
     (aux_sym__stmt_token3, 703), (aux_sym_if_stmt_token1, 706), (aux_sym_if_stmt_token3, 692),
     (aux_sym_case_stmt_token1, 709), (aux_sym_case_stmt_token2, 692),
     (aux_sym_for_stmt_token1, 712), (aux_sym_while_stmt_token1, 715),
     (aux_sym_repeat_stmt_token1, 718), (aux_sym_raise_stmt_token1, 721),
     (aux_sym_try_stmt_token1, 724), (aux_sym_try_stmt_token2, 727),
     (aux_sym_catch_clause_token1, 727), (aux_sym_finally_clause_token1, 727),
     (sym_c_style_comment, 3), (sym_pascal_style_comment, 3), (sym_pragma, 3),
     (sym__minus_before_base, 678), (sym__plus_before_base, 678)]"

lemma ts_parse_row_207_scan: "row_scan tokens_4_1 0 ts_parse_row_207 = Some (Suc (Suc (Suc (Suc (Suc (Suc 0))))))"
  unfolding ts_parse_row_207_def by simp

text \<open>Lines 78420 to 78537.\<close>

definition ts_parse_row_208 :: parse_row where
  "ts_parse_row_208 =
    [(sym_ERR_assign_func_call, 7508), (sym_ERR_unexpected_this_in_path, 2012),
     (sym_ERR_unexpected_super_in_path, 2012), (sym_ERR_method_decl_in_body, 2284),
     (sym_extern_pragma, 7490), (sym_wasm_pragma, 2284), (sym_warn_pragma, 7490),
     (sym_allow_pragma, 2286), (sym_test_pragma, 7490), (sym_once_pragma, 7490),
     (sym_must_call_pragma, 7490), (sym_export_pragma, 7490), (sym_pou_pragma, 7207),
     (sym_direct_variable, 7675), (sym_deref_expression, 2013), (sym_variable, 7599),
     (sym_var_access, 2013), (sym_method_decl, 2291), (sym_variable_access, 7508),
     (sym_func_call, 2045), (sym__stmt, 207), (sym_assign, 2284), (sym_if_stmt, 2284),
     (sym_case_stmt, 2284), (sym_for_stmt, 2284), (sym_while_stmt, 2284), (sym_repeat_stmt, 2284),
     (sym_raise_stmt, 2284), (sym_try_stmt, 2284), (sym_ERR_clause_outside_try, 2284),
     (sym_begin_path_expression, 2031), (sym_invocation, 2035), (sym_any_invocation, 2036),
     (sym_this_invocation, 2015), (sym_super_invocation, 2015), (sym_super_body_invocation, 2036),
     (sym_path_expression, 1921), (sym_field_expression, 2013), (sym_index_expression, 2013),
     (aux_sym_func_decl_repeat1, 7207), (aux_sym_stmt_list_repeat1, 207), (sym_identifier, 730),
     (aux_sym_ERR_unexpected_this_in_path_token1, 733),
     (aux_sym_ERR_unexpected_super_in_path_token1, 736), (sym_line_comment, 3),
     (anon_sym_LBRACE, 629), (anon_sym_LPAREN, 739), (aux_sym_test_pragma_token1, 9),
     (aux_sym_once_pragma_token1, 11), (aux_sym_must_call_pragma_token1, 13),
     (aux_sym_export_pragma_token1, 15), (sym_unsigned_int, 741), (sym__explicit_signed_int, 741),
     (sym_binary_int, 739), (sym_octal_int, 739), (sym_hex_int, 739),
     (sym__explicit_signed_real, 739), (sym_real_value, 739),
     (aux_sym_bool_literal_with_string_token1, 739), (aux_sym_bool_literal_with_string_token2, 741),
     (aux_sym_bool_literal_with_string_token3, 741), (sym_s_byte_char_str, 739),
     (sym_d_byte_char_str, 739), (aux_sym_time_token1, 739), (anon_sym_PLUS, 741),
     (anon_sym_DASH, 741), (aux_sym_ltime_token1, 739), (aux_sym_tod_token1, 739),
     (aux_sym_ltod_token1, 739), (aux_sym_short_date_token1, 739), (aux_sym_long_date_token1, 739),
     (aux_sym_short_date_and_time_token1, 739), (aux_sym_long_date_and_time_token1, 739),
     (aux_sym_sign_int_type_name_token1, 741), (aux_sym_sign_int_type_name_token2, 741),
     (aux_sym_sign_int_type_name_token3, 741), (aux_sym_sign_int_type_name_token4, 741),
     (aux_sym_unsign_int_type_name_token1, 741), (aux_sym_unsign_int_type_name_token2, 741),
     (aux_sym_unsign_int_type_name_token3, 741), (aux_sym_unsign_int_type_name_token4, 741),
     (aux_sym_real_type_name_token1, 741), (aux_sym_real_type_name_token2, 741),
     (aux_sym_string_name_token1, 741), (aux_sym_char_name_token1, 741),
     (aux_sym_multibits_type_name_token1, 741), (aux_sym_multibits_type_name_token2, 741),
     (aux_sym_multibits_type_name_token3, 741), (aux_sym_multibits_type_name_token4, 741),
     (anon_sym_SEMI, 743), (anon_sym_PERCENT, 745), (aux_sym_ref_value_token1, 741),
     (aux_sym_ref_addr_token1, 741), (anon_sym_DOT_DOT_DOT, 739), (aux_sym_method_decl_token1, 640),
     (aux_sym_unary_token1, 741), (aux_sym__stmt_token1, 642), (aux_sym__stmt_token2, 642),
     (aux_sym__stmt_token3, 642), (aux_sym_if_stmt_token1, 644), (aux_sym_if_stmt_token3, 741),
     (aux_sym_case_stmt_token1, 646), (aux_sym_case_stmt_token2, 741),
     (aux_sym_for_stmt_token1, 648), (aux_sym_while_stmt_token1, 650),
     (aux_sym_repeat_stmt_token1, 652), (aux_sym_raise_stmt_token1, 654),
     (aux_sym_try_stmt_token1, 656), (aux_sym_try_stmt_token2, 658),
     (aux_sym_catch_clause_token1, 658), (aux_sym_finally_clause_token1, 658),
     (sym_c_style_comment, 3), (sym_pascal_style_comment, 3), (sym_pragma, 3),
     (sym__minus_before_base, 739), (sym__plus_before_base, 739)]"

lemma ts_parse_row_208_scan: "row_scan tokens_4_1 0 ts_parse_row_208 = Some (Suc (Suc (Suc (Suc (Suc (Suc 0))))))"
  unfolding ts_parse_row_208_def by simp

text \<open>Lines 78538 to 78653.\<close>

definition ts_parse_row_209 :: parse_row where
  "ts_parse_row_209 =
    [(sym_ERR_assign_func_call, 7530), (sym_ERR_unexpected_this_in_path, 2372),
     (sym_ERR_unexpected_super_in_path, 2372), (sym_ERR_fb_variables_after_method, 1671),
     (sym_ERR_var_access_not_allowed, 3160), (sym_ERR_var_config_not_allowed, 3160),
     (sym_ERR_var_global_not_allowed, 3160), (sym_ERR_method_decl_in_body, 3150),
     (sym_extern_pragma, 7490), (sym_wasm_pragma, 3150), (sym_warn_pragma, 7490),
     (sym_allow_pragma, 3140), (sym_test_pragma, 7490), (sym_once_pragma, 7490),
     (sym_must_call_pragma, 7490), (sym_export_pragma, 7490), (sym_pou_pragma, 7194),
     (sym_direct_variable, 7675), (sym_deref_expression, 2373), (sym_variable, 7599),
     (sym_var_access, 2373), (sym_in_out_decls, 3160), (sym_var_decls, 3160),
     (sym_retain_var_decls, 3160), (sym_temp_var_decls, 3160), (sym_external_var_decls, 3160),
     (sym_global_var_decls, 2947), (sym_loc_partly_var_decl, 3160), (sym__fb_variables, 786),
     (sym_fb_input_decls, 3160), (sym_fb_output_decls, 3160), (sym_no_retain_var_decls, 3160),
     (sym_fb_body, 9743), (sym_method_decl, 787), (sym_prog_access_decls, 3043), (sym_SFC, 7970),
     (sym_SFC_network, 7612), (sym_initial_step, 7439), (sym_config_init, 3047),
     (sym_using_directive, 2991), (sym_variable_access, 7530), (sym_func_call, 2961),
     (sym_stmt_list, 7970), (sym__stmt, 2024), (sym_assign, 3150), (sym_if_stmt, 3150),
     (sym_case_stmt, 3150), (sym_for_stmt, 3150), (sym_while_stmt, 3150), (sym_repeat_stmt, 3150),
     (sym_raise_stmt, 3150), (sym_try_stmt, 3150), (sym_ERR_clause_outside_try, 3150),
     (sym_begin_path_expression, 2943), (sym_invocation, 2934), (sym_any_invocation, 2935),
     (sym_this_invocation, 2641), (sym_super_invocation, 2641), (sym_super_body_invocation, 2935),
     (sym_path_expression, 2627), (sym_field_expression, 2373), (sym_index_expression, 2373),
     (sym_ladder_diagram, 7970), (sym_fb_diagram, 7970),
     (aux_sym_ERR_fb_variables_after_method_repeat1, 786), (aux_sym_func_decl_repeat1, 7194),
     (aux_sym_func_decl_repeat2, 2991), (aux_sym_fb_decl_repeat3, 787), (aux_sym_SFC_repeat1, 7612),
     (aux_sym_stmt_list_repeat1, 2024), (aux_sym_ladder_diagram_repeat1, 8009),
     (aux_sym_fb_diagram_repeat1, 8013), (sym_identifier, 298),
     (aux_sym_ERR_unexpected_this_in_path_token1, 304),
     (aux_sym_ERR_unexpected_super_in_path_token1, 306), (sym_line_comment, 3),
     (anon_sym_LBRACE, 308), (aux_sym_test_pragma_token1, 9), (aux_sym_once_pragma_token1, 11),
     (aux_sym_must_call_pragma_token1, 13), (aux_sym_export_pragma_token1, 15),
     (anon_sym_SEMI, 310), (anon_sym_PERCENT, 312), (aux_sym_input_decls_token1, 314),
     (aux_sym_output_decls_token1, 316), (aux_sym_in_out_decls_token1, 318),
     (aux_sym_var_decls_token1, 320), (aux_sym_temp_var_decls_token1, 322),
     (aux_sym_external_var_decls_token1, 324), (aux_sym_global_var_decls_token1, 326),
     (aux_sym_fb_decl_token4, 748), (aux_sym_method_decl_token1, 330),
     (aux_sym_prog_access_decls_token1, 332), (aux_sym_initial_step_token1, 334),
     (aux_sym_config_init_token1, 336), (aux_sym_using_directive_token1, 338),
     (aux_sym__stmt_token1, 340), (aux_sym__stmt_token2, 340), (aux_sym__stmt_token3, 340),
     (aux_sym_if_stmt_token1, 342), (aux_sym_case_stmt_token1, 344), (aux_sym_for_stmt_token1, 346),
     (aux_sym_while_stmt_token1, 348), (aux_sym_repeat_stmt_token1, 350),
     (aux_sym_raise_stmt_token1, 352), (aux_sym_try_stmt_token1, 354),
     (aux_sym_try_stmt_token2, 356), (aux_sym_catch_clause_token1, 356),
     (aux_sym_finally_clause_token1, 356), (sym_ld_rung, 358), (sym_fbd_network, 360),
     (sym_c_style_comment, 3), (sym_pascal_style_comment, 3), (sym_pragma, 3)]"

lemma ts_parse_row_209_scan: "row_scan tokens_63_2 0 ts_parse_row_209 = Some (Suc (Suc (Suc (Suc 0))))"
  unfolding ts_parse_row_209_def by simp

text \<open>Lines 78654 to 78769.\<close>

definition ts_parse_row_210 :: parse_row where
  "ts_parse_row_210 =
    [(sym_ERR_assign_func_call, 7530), (sym_ERR_unexpected_this_in_path, 2372),
     (sym_ERR_unexpected_super_in_path, 2372), (sym_ERR_fb_variables_after_method, 1363),
     (sym_ERR_var_access_not_allowed, 3160), (sym_ERR_var_config_not_allowed, 3160),
     (sym_ERR_var_global_not_allowed, 3160), (sym_ERR_method_decl_in_body, 3150),
     (sym_extern_pragma, 7490), (sym_wasm_pragma, 3150), (sym_warn_pragma, 7490),
     (sym_allow_pragma, 3140), (sym_test_pragma, 7490), (sym_once_pragma, 7490),
     (sym_must_call_pragma, 7490), (sym_export_pragma, 7490), (sym_pou_pragma, 7194),
     (sym_direct_variable, 7675), (sym_deref_expression, 2373), (sym_variable, 7599),
     (sym_var_access, 2373), (sym_in_out_decls, 3160), (sym_var_decls, 3160),
     (sym_retain_var_decls, 3160), (sym_temp_var_decls, 3160), (sym_external_var_decls, 3160),
     (sym_global_var_decls, 2947), (sym_loc_partly_var_decl, 3160), (sym__fb_variables, 610),
     (sym_fb_input_decls, 3160), (sym_fb_output_decls, 3160), (sym_no_retain_var_decls, 3160),
     (sym_fb_body, 8645), (sym_method_decl, 611), (sym_prog_access_decls, 3043), (sym_SFC, 7970),
     (sym_SFC_network, 7612), (sym_initial_step, 7439), (sym_config_init, 3047),
     (sym_using_directive, 2991), (sym_variable_access, 7530), (sym_func_call, 2961),
     (sym_stmt_list, 7970), (sym__stmt, 2024), (sym_assign, 3150), (sym_if_stmt, 3150),
     (sym_case_stmt, 3150), (sym_for_stmt, 3150), (sym_while_stmt, 3150), (sym_repeat_stmt, 3150),
     (sym_raise_stmt, 3150), (sym_try_stmt, 3150), (sym_ERR_clause_outside_try, 3150),
     (sym_begin_path_expression, 2943), (sym_invocation, 2934), (sym_any_invocation, 2935),
     (sym_this_invocation, 2641), (sym_super_invocation, 2641), (sym_super_body_invocation, 2935),
     (sym_path_expression, 2627), (sym_field_expression, 2373), (sym_index_expression, 2373),
     (sym_ladder_diagram, 7970), (sym_fb_diagram, 7970),
     (aux_sym_ERR_fb_variables_after_method_repeat1, 610), (aux_sym_func_decl_repeat1, 7194),
     (aux_sym_func_decl_repeat2, 2991), (aux_sym_fb_decl_repeat3, 611), (aux_sym_SFC_repeat1, 7612),
     (aux_sym_stmt_list_repeat1, 2024), (aux_sym_ladder_diagram_repeat1, 8009),
     (aux_sym_fb_diagram_repeat1, 8013), (sym_identifier, 298),
     (aux_sym_ERR_unexpected_this_in_path_token1, 304),
     (aux_sym_ERR_unexpected_super_in_path_token1, 306), (sym_line_comment, 3),
     (anon_sym_LBRACE, 308), (aux_sym_test_pragma_token1, 9), (aux_sym_once_pragma_token1, 11),
     (aux_sym_must_call_pragma_token1, 13), (aux_sym_export_pragma_token1, 15),
     (anon_sym_SEMI, 310), (anon_sym_PERCENT, 312), (aux_sym_input_decls_token1, 314),
     (aux_sym_output_decls_token1, 316), (aux_sym_in_out_decls_token1, 318),
     (aux_sym_var_decls_token1, 320), (aux_sym_temp_var_decls_token1, 322),
     (aux_sym_external_var_decls_token1, 324), (aux_sym_global_var_decls_token1, 326),
     (aux_sym_fb_decl_token4, 750), (aux_sym_method_decl_token1, 330),
     (aux_sym_prog_access_decls_token1, 332), (aux_sym_initial_step_token1, 334),
     (aux_sym_config_init_token1, 336), (aux_sym_using_directive_token1, 338),
     (aux_sym__stmt_token1, 340), (aux_sym__stmt_token2, 340), (aux_sym__stmt_token3, 340),
     (aux_sym_if_stmt_token1, 342), (aux_sym_case_stmt_token1, 344), (aux_sym_for_stmt_token1, 346),
     (aux_sym_while_stmt_token1, 348), (aux_sym_repeat_stmt_token1, 350),
     (aux_sym_raise_stmt_token1, 352), (aux_sym_try_stmt_token1, 354),
     (aux_sym_try_stmt_token2, 356), (aux_sym_catch_clause_token1, 356),
     (aux_sym_finally_clause_token1, 356), (sym_ld_rung, 358), (sym_fbd_network, 360),
     (sym_c_style_comment, 3), (sym_pascal_style_comment, 3), (sym_pragma, 3)]"

lemma ts_parse_row_210_scan: "row_scan tokens_63_2 0 ts_parse_row_210 = Some (Suc (Suc (Suc (Suc 0))))"
  unfolding ts_parse_row_210_def by simp

text \<open>Lines 78770 to 78885.\<close>

definition ts_parse_row_211 :: parse_row where
  "ts_parse_row_211 =
    [(sym_ERR_assign_func_call, 7530), (sym_ERR_unexpected_this_in_path, 2372),
     (sym_ERR_unexpected_super_in_path, 2372), (sym_ERR_fb_variables_after_method, 1576),
     (sym_ERR_var_access_not_allowed, 3160), (sym_ERR_var_config_not_allowed, 3160),
     (sym_ERR_var_global_not_allowed, 3160), (sym_ERR_method_decl_in_body, 3150),
     (sym_extern_pragma, 7490), (sym_wasm_pragma, 3150), (sym_warn_pragma, 7490),
     (sym_allow_pragma, 3140), (sym_test_pragma, 7490), (sym_once_pragma, 7490),
     (sym_must_call_pragma, 7490), (sym_export_pragma, 7490), (sym_pou_pragma, 7194),
     (sym_direct_variable, 7675), (sym_deref_expression, 2373), (sym_variable, 7599),
     (sym_var_access, 2373), (sym_in_out_decls, 3160), (sym_var_decls, 3160),
     (sym_retain_var_decls, 3160), (sym_temp_var_decls, 3160), (sym_external_var_decls, 3160),
     (sym_global_var_decls, 2947), (sym_loc_partly_var_decl, 3160), (sym__fb_variables, 334),
     (sym_fb_input_decls, 3160), (sym_fb_output_decls, 3160), (sym_no_retain_var_decls, 3160),
     (sym_fb_body, 8722), (sym_method_decl, 335), (sym_prog_access_decls, 3043), (sym_SFC, 7970),
     (sym_SFC_network, 7612), (sym_initial_step, 7439), (sym_config_init, 3047),
     (sym_using_directive, 2991), (sym_variable_access, 7530), (sym_func_call, 2961),
     (sym_stmt_list, 7970), (sym__stmt, 2024), (sym_assign, 3150), (sym_if_stmt, 3150),
     (sym_case_stmt, 3150), (sym_for_stmt, 3150), (sym_while_stmt, 3150), (sym_repeat_stmt, 3150),
     (sym_raise_stmt, 3150), (sym_try_stmt, 3150), (sym_ERR_clause_outside_try, 3150),
     (sym_begin_path_expression, 2943), (sym_invocation, 2934), (sym_any_invocation, 2935),
     (sym_this_invocation, 2641), (sym_super_invocation, 2641), (sym_super_body_invocation, 2935),
     (sym_path_expression, 2627), (sym_field_expression, 2373), (sym_index_expression, 2373),
     (sym_ladder_diagram, 7970), (sym_fb_diagram, 7970),
     (aux_sym_ERR_fb_variables_after_method_repeat1, 334), (aux_sym_func_decl_repeat1, 7194),
     (aux_sym_func_decl_repeat2, 2991), (aux_sym_fb_decl_repeat3, 335), (aux_sym_SFC_repeat1, 7612),
     (aux_sym_stmt_list_repeat1, 2024), (aux_sym_ladder_diagram_repeat1, 8009),
     (aux_sym_fb_diagram_repeat1, 8013), (sym_identifier, 298),
     (aux_sym_ERR_unexpected_this_in_path_token1, 304),
     (aux_sym_ERR_unexpected_super_in_path_token1, 306), (sym_line_comment, 3),
     (anon_sym_LBRACE, 308), (aux_sym_test_pragma_token1, 9), (aux_sym_once_pragma_token1, 11),
     (aux_sym_must_call_pragma_token1, 13), (aux_sym_export_pragma_token1, 15),
     (anon_sym_SEMI, 310), (anon_sym_PERCENT, 312), (aux_sym_input_decls_token1, 314),
     (aux_sym_output_decls_token1, 316), (aux_sym_in_out_decls_token1, 318),
     (aux_sym_var_decls_token1, 320), (aux_sym_temp_var_decls_token1, 322),
     (aux_sym_external_var_decls_token1, 324), (aux_sym_global_var_decls_token1, 326),
     (aux_sym_fb_decl_token4, 752), (aux_sym_method_decl_token1, 330),
     (aux_sym_prog_access_decls_token1, 332), (aux_sym_initial_step_token1, 334),
     (aux_sym_config_init_token1, 336), (aux_sym_using_directive_token1, 338),
     (aux_sym__stmt_token1, 340), (aux_sym__stmt_token2, 340), (aux_sym__stmt_token3, 340),
     (aux_sym_if_stmt_token1, 342), (aux_sym_case_stmt_token1, 344), (aux_sym_for_stmt_token1, 346),
     (aux_sym_while_stmt_token1, 348), (aux_sym_repeat_stmt_token1, 350),
     (aux_sym_raise_stmt_token1, 352), (aux_sym_try_stmt_token1, 354),
     (aux_sym_try_stmt_token2, 356), (aux_sym_catch_clause_token1, 356),
     (aux_sym_finally_clause_token1, 356), (sym_ld_rung, 358), (sym_fbd_network, 360),
     (sym_c_style_comment, 3), (sym_pascal_style_comment, 3), (sym_pragma, 3)]"

lemma ts_parse_row_211_scan: "row_scan tokens_63_2 0 ts_parse_row_211 = Some (Suc (Suc (Suc (Suc 0))))"
  unfolding ts_parse_row_211_def by simp

text \<open>Lines 78886 to 79001.\<close>

definition ts_parse_row_212 :: parse_row where
  "ts_parse_row_212 =
    [(sym_ERR_assign_func_call, 7530), (sym_ERR_unexpected_this_in_path, 2372),
     (sym_ERR_unexpected_super_in_path, 2372), (sym_ERR_fb_variables_after_method, 1368),
     (sym_ERR_var_access_not_allowed, 3160), (sym_ERR_var_config_not_allowed, 3160),
     (sym_ERR_var_global_not_allowed, 3160), (sym_ERR_method_decl_in_body, 3150),
     (sym_extern_pragma, 7490), (sym_wasm_pragma, 3150), (sym_warn_pragma, 7490),
     (sym_allow_pragma, 3140), (sym_test_pragma, 7490), (sym_once_pragma, 7490),
     (sym_must_call_pragma, 7490), (sym_export_pragma, 7490), (sym_pou_pragma, 7194),
     (sym_direct_variable, 7675), (sym_deref_expression, 2373), (sym_variable, 7599),
     (sym_var_access, 2373), (sym_in_out_decls, 3160), (sym_var_decls, 3160),
     (sym_retain_var_decls, 3160), (sym_temp_var_decls, 3160), (sym_external_var_decls, 3160),
     (sym_global_var_decls, 2947), (sym_loc_partly_var_decl, 3160), (sym__fb_variables, 616),
     (sym_fb_input_decls, 3160), (sym_fb_output_decls, 3160), (sym_no_retain_var_decls, 3160),
     (sym_fb_body, 9370), (sym_method_decl, 617), (sym_prog_access_decls, 3043), (sym_SFC, 7970),
     (sym_SFC_network, 7612), (sym_initial_step, 7439), (sym_config_init, 3047),
     (sym_using_directive, 2991), (sym_variable_access, 7530), (sym_func_call, 2961),
     (sym_stmt_list, 7970), (sym__stmt, 2024), (sym_assign, 3150), (sym_if_stmt, 3150),
     (sym_case_stmt, 3150), (sym_for_stmt, 3150), (sym_while_stmt, 3150), (sym_repeat_stmt, 3150),
     (sym_raise_stmt, 3150), (sym_try_stmt, 3150), (sym_ERR_clause_outside_try, 3150),
     (sym_begin_path_expression, 2943), (sym_invocation, 2934), (sym_any_invocation, 2935),
     (sym_this_invocation, 2641), (sym_super_invocation, 2641), (sym_super_body_invocation, 2935),
     (sym_path_expression, 2627), (sym_field_expression, 2373), (sym_index_expression, 2373),
     (sym_ladder_diagram, 7970), (sym_fb_diagram, 7970),
     (aux_sym_ERR_fb_variables_after_method_repeat1, 616), (aux_sym_func_decl_repeat1, 7194),
     (aux_sym_func_decl_repeat2, 2991), (aux_sym_fb_decl_repeat3, 617), (aux_sym_SFC_repeat1, 7612),
     (aux_sym_stmt_list_repeat1, 2024), (aux_sym_ladder_diagram_repeat1, 8009),
     (aux_sym_fb_diagram_repeat1, 8013), (sym_identifier, 298),
     (aux_sym_ERR_unexpected_this_in_path_token1, 304),
     (aux_sym_ERR_unexpected_super_in_path_token1, 306), (sym_line_comment, 3),
     (anon_sym_LBRACE, 308), (aux_sym_test_pragma_token1, 9), (aux_sym_once_pragma_token1, 11),
     (aux_sym_must_call_pragma_token1, 13), (aux_sym_export_pragma_token1, 15),
     (anon_sym_SEMI, 310), (anon_sym_PERCENT, 312), (aux_sym_input_decls_token1, 314),
     (aux_sym_output_decls_token1, 316), (aux_sym_in_out_decls_token1, 318),
     (aux_sym_var_decls_token1, 320), (aux_sym_temp_var_decls_token1, 322),
     (aux_sym_external_var_decls_token1, 324), (aux_sym_global_var_decls_token1, 326),
     (aux_sym_fb_decl_token4, 754), (aux_sym_method_decl_token1, 330),
     (aux_sym_prog_access_decls_token1, 332), (aux_sym_initial_step_token1, 334),
     (aux_sym_config_init_token1, 336), (aux_sym_using_directive_token1, 338),
     (aux_sym__stmt_token1, 340), (aux_sym__stmt_token2, 340), (aux_sym__stmt_token3, 340),
     (aux_sym_if_stmt_token1, 342), (aux_sym_case_stmt_token1, 344), (aux_sym_for_stmt_token1, 346),
     (aux_sym_while_stmt_token1, 348), (aux_sym_repeat_stmt_token1, 350),
     (aux_sym_raise_stmt_token1, 352), (aux_sym_try_stmt_token1, 354),
     (aux_sym_try_stmt_token2, 356), (aux_sym_catch_clause_token1, 356),
     (aux_sym_finally_clause_token1, 356), (sym_ld_rung, 358), (sym_fbd_network, 360),
     (sym_c_style_comment, 3), (sym_pascal_style_comment, 3), (sym_pragma, 3)]"

lemma ts_parse_row_212_scan: "row_scan tokens_63_2 0 ts_parse_row_212 = Some (Suc (Suc (Suc (Suc 0))))"
  unfolding ts_parse_row_212_def by simp

text \<open>Lines 79002 to 79117.\<close>

definition ts_parse_row_213 :: parse_row where
  "ts_parse_row_213 =
    [(sym_ERR_assign_func_call, 7530), (sym_ERR_unexpected_this_in_path, 2372),
     (sym_ERR_unexpected_super_in_path, 2372), (sym_ERR_fb_variables_after_method, 1866),
     (sym_ERR_var_access_not_allowed, 3160), (sym_ERR_var_config_not_allowed, 3160),
     (sym_ERR_var_global_not_allowed, 3160), (sym_ERR_method_decl_in_body, 3150),
     (sym_extern_pragma, 7490), (sym_wasm_pragma, 3150), (sym_warn_pragma, 7490),
     (sym_allow_pragma, 3140), (sym_test_pragma, 7490), (sym_once_pragma, 7490),
     (sym_must_call_pragma, 7490), (sym_export_pragma, 7490), (sym_pou_pragma, 7194),
     (sym_direct_variable, 7675), (sym_deref_expression, 2373), (sym_variable, 7599),
     (sym_var_access, 2373), (sym_in_out_decls, 3160), (sym_var_decls, 3160),
     (sym_retain_var_decls, 3160), (sym_temp_var_decls, 3160), (sym_external_var_decls, 3160),
     (sym_global_var_decls, 2947), (sym_loc_partly_var_decl, 3160), (sym__fb_variables, 402),
     (sym_fb_input_decls, 3160), (sym_fb_output_decls, 3160), (sym_no_retain_var_decls, 3160),
     (sym_fb_body, 9622), (sym_method_decl, 403), (sym_prog_access_decls, 3043), (sym_SFC, 7970),
     (sym_SFC_network, 7612), (sym_initial_step, 7439), (sym_config_init, 3047),
     (sym_using_directive, 2991), (sym_variable_access, 7530), (sym_func_call, 2961),
     (sym_stmt_list, 7970), (sym__stmt, 2024), (sym_assign, 3150), (sym_if_stmt, 3150),
     (sym_case_stmt, 3150), (sym_for_stmt, 3150), (sym_while_stmt, 3150), (sym_repeat_stmt, 3150),
     (sym_raise_stmt, 3150), (sym_try_stmt, 3150), (sym_ERR_clause_outside_try, 3150),
     (sym_begin_path_expression, 2943), (sym_invocation, 2934), (sym_any_invocation, 2935),
     (sym_this_invocation, 2641), (sym_super_invocation, 2641), (sym_super_body_invocation, 2935),
     (sym_path_expression, 2627), (sym_field_expression, 2373), (sym_index_expression, 2373),
     (sym_ladder_diagram, 7970), (sym_fb_diagram, 7970),
     (aux_sym_ERR_fb_variables_after_method_repeat1, 402), (aux_sym_func_decl_repeat1, 7194),
     (aux_sym_func_decl_repeat2, 2991), (aux_sym_fb_decl_repeat3, 403), (aux_sym_SFC_repeat1, 7612),
     (aux_sym_stmt_list_repeat1, 2024), (aux_sym_ladder_diagram_repeat1, 8009),
     (aux_sym_fb_diagram_repeat1, 8013), (sym_identifier, 298),
     (aux_sym_ERR_unexpected_this_in_path_token1, 304),
     (aux_sym_ERR_unexpected_super_in_path_token1, 306), (sym_line_comment, 3),
     (anon_sym_LBRACE, 308), (aux_sym_test_pragma_token1, 9), (aux_sym_once_pragma_token1, 11),
     (aux_sym_must_call_pragma_token1, 13), (aux_sym_export_pragma_token1, 15),
     (anon_sym_SEMI, 310), (anon_sym_PERCENT, 312), (aux_sym_input_decls_token1, 314),
     (aux_sym_output_decls_token1, 316), (aux_sym_in_out_decls_token1, 318),
     (aux_sym_var_decls_token1, 320), (aux_sym_temp_var_decls_token1, 322),
     (aux_sym_external_var_decls_token1, 324), (aux_sym_global_var_decls_token1, 326),
     (aux_sym_fb_decl_token4, 756), (aux_sym_method_decl_token1, 330),
     (aux_sym_prog_access_decls_token1, 332), (aux_sym_initial_step_token1, 334),
     (aux_sym_config_init_token1, 336), (aux_sym_using_directive_token1, 338),
     (aux_sym__stmt_token1, 340), (aux_sym__stmt_token2, 340), (aux_sym__stmt_token3, 340),
     (aux_sym_if_stmt_token1, 342), (aux_sym_case_stmt_token1, 344), (aux_sym_for_stmt_token1, 346),
     (aux_sym_while_stmt_token1, 348), (aux_sym_repeat_stmt_token1, 350),
     (aux_sym_raise_stmt_token1, 352), (aux_sym_try_stmt_token1, 354),
     (aux_sym_try_stmt_token2, 356), (aux_sym_catch_clause_token1, 356),
     (aux_sym_finally_clause_token1, 356), (sym_ld_rung, 358), (sym_fbd_network, 360),
     (sym_c_style_comment, 3), (sym_pascal_style_comment, 3), (sym_pragma, 3)]"

lemma ts_parse_row_213_scan: "row_scan tokens_63_2 0 ts_parse_row_213 = Some (Suc (Suc (Suc (Suc 0))))"
  unfolding ts_parse_row_213_def by simp

text \<open>Lines 79118 to 79233.\<close>

definition ts_parse_row_214 :: parse_row where
  "ts_parse_row_214 =
    [(sym_ERR_assign_func_call, 7530), (sym_ERR_unexpected_this_in_path, 2372),
     (sym_ERR_unexpected_super_in_path, 2372), (sym_ERR_fb_variables_after_method, 1296),
     (sym_ERR_var_access_not_allowed, 3160), (sym_ERR_var_config_not_allowed, 3160),
     (sym_ERR_var_global_not_allowed, 3160), (sym_ERR_method_decl_in_body, 3150),
     (sym_extern_pragma, 7490), (sym_wasm_pragma, 3150), (sym_warn_pragma, 7490),
     (sym_allow_pragma, 3140), (sym_test_pragma, 7490), (sym_once_pragma, 7490),
     (sym_must_call_pragma, 7490), (sym_export_pragma, 7490), (sym_pou_pragma, 7194),
     (sym_direct_variable, 7675), (sym_deref_expression, 2373), (sym_variable, 7599),
     (sym_var_access, 2373), (sym_in_out_decls, 3160), (sym_var_decls, 3160),
     (sym_retain_var_decls, 3160), (sym_temp_var_decls, 3160), (sym_external_var_decls, 3160),
     (sym_global_var_decls, 2947), (sym_loc_partly_var_decl, 3160), (sym__fb_variables, 691),
     (sym_fb_input_decls, 3160), (sym_fb_output_decls, 3160), (sym_no_retain_var_decls, 3160),
     (sym_fb_body, 9968), (sym_method_decl, 692), (sym_prog_access_decls, 3043), (sym_SFC, 7970),
     (sym_SFC_network, 7612), (sym_initial_step, 7439), (sym_config_init, 3047),
     (sym_using_directive, 2991), (sym_variable_access, 7530), (sym_func_call, 2961),
     (sym_stmt_list, 7970), (sym__stmt, 2024), (sym_assign, 3150), (sym_if_stmt, 3150),
     (sym_case_stmt, 3150), (sym_for_stmt, 3150), (sym_while_stmt, 3150), (sym_repeat_stmt, 3150),
     (sym_raise_stmt, 3150), (sym_try_stmt, 3150), (sym_ERR_clause_outside_try, 3150),
     (sym_begin_path_expression, 2943), (sym_invocation, 2934), (sym_any_invocation, 2935),
     (sym_this_invocation, 2641), (sym_super_invocation, 2641), (sym_super_body_invocation, 2935),
     (sym_path_expression, 2627), (sym_field_expression, 2373), (sym_index_expression, 2373),
     (sym_ladder_diagram, 7970), (sym_fb_diagram, 7970),
     (aux_sym_ERR_fb_variables_after_method_repeat1, 691), (aux_sym_func_decl_repeat1, 7194),
     (aux_sym_func_decl_repeat2, 2991), (aux_sym_fb_decl_repeat3, 692), (aux_sym_SFC_repeat1, 7612),
     (aux_sym_stmt_list_repeat1, 2024), (aux_sym_ladder_diagram_repeat1, 8009),
     (aux_sym_fb_diagram_repeat1, 8013), (sym_identifier, 298),
     (aux_sym_ERR_unexpected_this_in_path_token1, 304),
     (aux_sym_ERR_unexpected_super_in_path_token1, 306), (sym_line_comment, 3),
     (anon_sym_LBRACE, 308), (aux_sym_test_pragma_token1, 9), (aux_sym_once_pragma_token1, 11),
     (aux_sym_must_call_pragma_token1, 13), (aux_sym_export_pragma_token1, 15),
     (anon_sym_SEMI, 310), (anon_sym_PERCENT, 312), (aux_sym_input_decls_token1, 314),
     (aux_sym_output_decls_token1, 316), (aux_sym_in_out_decls_token1, 318),
     (aux_sym_var_decls_token1, 320), (aux_sym_temp_var_decls_token1, 322),
     (aux_sym_external_var_decls_token1, 324), (aux_sym_global_var_decls_token1, 326),
     (aux_sym_fb_decl_token4, 758), (aux_sym_method_decl_token1, 330),
     (aux_sym_prog_access_decls_token1, 332), (aux_sym_initial_step_token1, 334),
     (aux_sym_config_init_token1, 336), (aux_sym_using_directive_token1, 338),
     (aux_sym__stmt_token1, 340), (aux_sym__stmt_token2, 340), (aux_sym__stmt_token3, 340),
     (aux_sym_if_stmt_token1, 342), (aux_sym_case_stmt_token1, 344), (aux_sym_for_stmt_token1, 346),
     (aux_sym_while_stmt_token1, 348), (aux_sym_repeat_stmt_token1, 350),
     (aux_sym_raise_stmt_token1, 352), (aux_sym_try_stmt_token1, 354),
     (aux_sym_try_stmt_token2, 356), (aux_sym_catch_clause_token1, 356),
     (aux_sym_finally_clause_token1, 356), (sym_ld_rung, 358), (sym_fbd_network, 360),
     (sym_c_style_comment, 3), (sym_pascal_style_comment, 3), (sym_pragma, 3)]"

lemma ts_parse_row_214_scan: "row_scan tokens_63_2 0 ts_parse_row_214 = Some (Suc (Suc (Suc (Suc 0))))"
  unfolding ts_parse_row_214_def by simp

text \<open>Lines 79234 to 79349.\<close>

definition ts_parse_row_215 :: parse_row where
  "ts_parse_row_215 =
    [(sym_ERR_assign_func_call, 7530), (sym_ERR_unexpected_this_in_path, 2372),
     (sym_ERR_unexpected_super_in_path, 2372), (sym_ERR_fb_variables_after_method, 1382),
     (sym_ERR_var_access_not_allowed, 3160), (sym_ERR_var_config_not_allowed, 3160),
     (sym_ERR_var_global_not_allowed, 3160), (sym_ERR_method_decl_in_body, 3150),
     (sym_extern_pragma, 7490), (sym_wasm_pragma, 3150), (sym_warn_pragma, 7490),
     (sym_allow_pragma, 3140), (sym_test_pragma, 7490), (sym_once_pragma, 7490),
     (sym_must_call_pragma, 7490), (sym_export_pragma, 7490), (sym_pou_pragma, 7194),
     (sym_direct_variable, 7675), (sym_deref_expression, 2373), (sym_variable, 7599),
     (sym_var_access, 2373), (sym_in_out_decls, 3160), (sym_var_decls, 3160),
     (sym_retain_var_decls, 3160), (sym_temp_var_decls, 3160), (sym_external_var_decls, 3160),
     (sym_global_var_decls, 2947), (sym_loc_partly_var_decl, 3160), (sym__fb_variables, 880),
     (sym_fb_input_decls, 3160), (sym_fb_output_decls, 3160), (sym_no_retain_var_decls, 3160),
     (sym_fb_body, 8572), (sym_method_decl, 626), (sym_prog_access_decls, 3043), (sym_SFC, 7970),
     (sym_SFC_network, 7612), (sym_initial_step, 7439), (sym_config_init, 3047),
     (sym_using_directive, 2991), (sym_variable_access, 7530), (sym_func_call, 2961),
     (sym_stmt_list, 7970), (sym__stmt, 2024), (sym_assign, 3150), (sym_if_stmt, 3150),
     (sym_case_stmt, 3150), (sym_for_stmt, 3150), (sym_while_stmt, 3150), (sym_repeat_stmt, 3150),
     (sym_raise_stmt, 3150), (sym_try_stmt, 3150), (sym_ERR_clause_outside_try, 3150),
     (sym_begin_path_expression, 2943), (sym_invocation, 2934), (sym_any_invocation, 2935),
     (sym_this_invocation, 2641), (sym_super_invocation, 2641), (sym_super_body_invocation, 2935),
     (sym_path_expression, 2627), (sym_field_expression, 2373), (sym_index_expression, 2373),
     (sym_ladder_diagram, 7970), (sym_fb_diagram, 7970),
     (aux_sym_ERR_fb_variables_after_method_repeat1, 880), (aux_sym_func_decl_repeat1, 7194),
     (aux_sym_func_decl_repeat2, 2991), (aux_sym_fb_decl_repeat3, 626), (aux_sym_SFC_repeat1, 7612),
     (aux_sym_stmt_list_repeat1, 2024), (aux_sym_ladder_diagram_repeat1, 8009),
     (aux_sym_fb_diagram_repeat1, 8013), (sym_identifier, 298),
     (aux_sym_ERR_unexpected_this_in_path_token1, 304),
     (aux_sym_ERR_unexpected_super_in_path_token1, 306), (sym_line_comment, 3),
     (anon_sym_LBRACE, 308), (aux_sym_test_pragma_token1, 9), (aux_sym_once_pragma_token1, 11),
     (aux_sym_must_call_pragma_token1, 13), (aux_sym_export_pragma_token1, 15),
     (anon_sym_SEMI, 310), (anon_sym_PERCENT, 312), (aux_sym_input_decls_token1, 314),
     (aux_sym_output_decls_token1, 316), (aux_sym_in_out_decls_token1, 318),
     (aux_sym_var_decls_token1, 320), (aux_sym_temp_var_decls_token1, 322),
     (aux_sym_external_var_decls_token1, 324), (aux_sym_global_var_decls_token1, 326),
     (aux_sym_fb_decl_token4, 760), (aux_sym_method_decl_token1, 330),
     (aux_sym_prog_access_decls_token1, 332), (aux_sym_initial_step_token1, 334),
     (aux_sym_config_init_token1, 336), (aux_sym_using_directive_token1, 338),
     (aux_sym__stmt_token1, 340), (aux_sym__stmt_token2, 340), (aux_sym__stmt_token3, 340),
     (aux_sym_if_stmt_token1, 342), (aux_sym_case_stmt_token1, 344), (aux_sym_for_stmt_token1, 346),
     (aux_sym_while_stmt_token1, 348), (aux_sym_repeat_stmt_token1, 350),
     (aux_sym_raise_stmt_token1, 352), (aux_sym_try_stmt_token1, 354),
     (aux_sym_try_stmt_token2, 356), (aux_sym_catch_clause_token1, 356),
     (aux_sym_finally_clause_token1, 356), (sym_ld_rung, 358), (sym_fbd_network, 360),
     (sym_c_style_comment, 3), (sym_pascal_style_comment, 3), (sym_pragma, 3)]"

lemma ts_parse_row_215_scan: "row_scan tokens_63_2 0 ts_parse_row_215 = Some (Suc (Suc (Suc (Suc 0))))"
  unfolding ts_parse_row_215_def by simp

text \<open>Lines 79350 to 79465.\<close>

definition ts_parse_row_216 :: parse_row where
  "ts_parse_row_216 =
    [(sym_ERR_assign_func_call, 7530), (sym_ERR_unexpected_this_in_path, 2372),
     (sym_ERR_unexpected_super_in_path, 2372), (sym_ERR_fb_variables_after_method, 1386),
     (sym_ERR_var_access_not_allowed, 3160), (sym_ERR_var_config_not_allowed, 3160),
     (sym_ERR_var_global_not_allowed, 3160), (sym_ERR_method_decl_in_body, 3150),
     (sym_extern_pragma, 7490), (sym_wasm_pragma, 3150), (sym_warn_pragma, 7490),
     (sym_allow_pragma, 3140), (sym_test_pragma, 7490), (sym_once_pragma, 7490),
     (sym_must_call_pragma, 7490), (sym_export_pragma, 7490), (sym_pou_pragma, 7194),
     (sym_direct_variable, 7675), (sym_deref_expression, 2373), (sym_variable, 7599),
     (sym_var_access, 2373), (sym_in_out_decls, 3160), (sym_var_decls, 3160),
     (sym_retain_var_decls, 3160), (sym_temp_var_decls, 3160), (sym_external_var_decls, 3160),
     (sym_global_var_decls, 2947), (sym_loc_partly_var_decl, 3160), (sym__fb_variables, 628),
     (sym_fb_input_decls, 3160), (sym_fb_output_decls, 3160), (sym_no_retain_var_decls, 3160),
     (sym_fb_body, 8696), (sym_method_decl, 629), (sym_prog_access_decls, 3043), (sym_SFC, 7970),
     (sym_SFC_network, 7612), (sym_initial_step, 7439), (sym_config_init, 3047),
     (sym_using_directive, 2991), (sym_variable_access, 7530), (sym_func_call, 2961),
     (sym_stmt_list, 7970), (sym__stmt, 2024), (sym_assign, 3150), (sym_if_stmt, 3150),
     (sym_case_stmt, 3150), (sym_for_stmt, 3150), (sym_while_stmt, 3150), (sym_repeat_stmt, 3150),
     (sym_raise_stmt, 3150), (sym_try_stmt, 3150), (sym_ERR_clause_outside_try, 3150),
     (sym_begin_path_expression, 2943), (sym_invocation, 2934), (sym_any_invocation, 2935),
     (sym_this_invocation, 2641), (sym_super_invocation, 2641), (sym_super_body_invocation, 2935),
     (sym_path_expression, 2627), (sym_field_expression, 2373), (sym_index_expression, 2373),
     (sym_ladder_diagram, 7970), (sym_fb_diagram, 7970),
     (aux_sym_ERR_fb_variables_after_method_repeat1, 628), (aux_sym_func_decl_repeat1, 7194),
     (aux_sym_func_decl_repeat2, 2991), (aux_sym_fb_decl_repeat3, 629), (aux_sym_SFC_repeat1, 7612),
     (aux_sym_stmt_list_repeat1, 2024), (aux_sym_ladder_diagram_repeat1, 8009),
     (aux_sym_fb_diagram_repeat1, 8013), (sym_identifier, 298),
     (aux_sym_ERR_unexpected_this_in_path_token1, 304),
     (aux_sym_ERR_unexpected_super_in_path_token1, 306), (sym_line_comment, 3),
     (anon_sym_LBRACE, 308), (aux_sym_test_pragma_token1, 9), (aux_sym_once_pragma_token1, 11),
     (aux_sym_must_call_pragma_token1, 13), (aux_sym_export_pragma_token1, 15),
     (anon_sym_SEMI, 310), (anon_sym_PERCENT, 312), (aux_sym_input_decls_token1, 314),
     (aux_sym_output_decls_token1, 316), (aux_sym_in_out_decls_token1, 318),
     (aux_sym_var_decls_token1, 320), (aux_sym_temp_var_decls_token1, 322),
     (aux_sym_external_var_decls_token1, 324), (aux_sym_global_var_decls_token1, 326),
     (aux_sym_fb_decl_token4, 762), (aux_sym_method_decl_token1, 330),
     (aux_sym_prog_access_decls_token1, 332), (aux_sym_initial_step_token1, 334),
     (aux_sym_config_init_token1, 336), (aux_sym_using_directive_token1, 338),
     (aux_sym__stmt_token1, 340), (aux_sym__stmt_token2, 340), (aux_sym__stmt_token3, 340),
     (aux_sym_if_stmt_token1, 342), (aux_sym_case_stmt_token1, 344), (aux_sym_for_stmt_token1, 346),
     (aux_sym_while_stmt_token1, 348), (aux_sym_repeat_stmt_token1, 350),
     (aux_sym_raise_stmt_token1, 352), (aux_sym_try_stmt_token1, 354),
     (aux_sym_try_stmt_token2, 356), (aux_sym_catch_clause_token1, 356),
     (aux_sym_finally_clause_token1, 356), (sym_ld_rung, 358), (sym_fbd_network, 360),
     (sym_c_style_comment, 3), (sym_pascal_style_comment, 3), (sym_pragma, 3)]"

lemma ts_parse_row_216_scan: "row_scan tokens_63_2 0 ts_parse_row_216 = Some (Suc (Suc (Suc (Suc 0))))"
  unfolding ts_parse_row_216_def by simp

text \<open>Lines 79466 to 79581.\<close>

definition ts_parse_row_217 :: parse_row where
  "ts_parse_row_217 =
    [(sym_ERR_assign_func_call, 7530), (sym_ERR_unexpected_this_in_path, 2372),
     (sym_ERR_unexpected_super_in_path, 2372), (sym_ERR_fb_variables_after_method, 1946),
     (sym_ERR_var_access_not_allowed, 3160), (sym_ERR_var_config_not_allowed, 3160),
     (sym_ERR_var_global_not_allowed, 3160), (sym_ERR_method_decl_in_body, 3150),
     (sym_extern_pragma, 7490), (sym_wasm_pragma, 3150), (sym_warn_pragma, 7490),
     (sym_allow_pragma, 3140), (sym_test_pragma, 7490), (sym_once_pragma, 7490),
     (sym_must_call_pragma, 7490), (sym_export_pragma, 7490), (sym_pou_pragma, 7194),
     (sym_direct_variable, 7675), (sym_deref_expression, 2373), (sym_variable, 7599),
     (sym_var_access, 2373), (sym_in_out_decls, 3160), (sym_var_decls, 3160),
     (sym_retain_var_decls, 3160), (sym_temp_var_decls, 3160), (sym_external_var_decls, 3160),
     (sym_global_var_decls, 2947), (sym_loc_partly_var_decl, 3160), (sym__fb_variables, 475),
     (sym_fb_input_decls, 3160), (sym_fb_output_decls, 3160), (sym_no_retain_var_decls, 3160),
     (sym_fb_body, 9868), (sym_method_decl, 476), (sym_prog_access_decls, 3043), (sym_SFC, 7970),
     (sym_SFC_network, 7612), (sym_initial_step, 7439), (sym_config_init, 3047),
     (sym_using_directive, 2991), (sym_variable_access, 7530), (sym_func_call, 2961),
     (sym_stmt_list, 7970), (sym__stmt, 2024), (sym_assign, 3150), (sym_if_stmt, 3150),
     (sym_case_stmt, 3150), (sym_for_stmt, 3150), (sym_while_stmt, 3150), (sym_repeat_stmt, 3150),
     (sym_raise_stmt, 3150), (sym_try_stmt, 3150), (sym_ERR_clause_outside_try, 3150),
     (sym_begin_path_expression, 2943), (sym_invocation, 2934), (sym_any_invocation, 2935),
     (sym_this_invocation, 2641), (sym_super_invocation, 2641), (sym_super_body_invocation, 2935),
     (sym_path_expression, 2627), (sym_field_expression, 2373), (sym_index_expression, 2373),
     (sym_ladder_diagram, 7970), (sym_fb_diagram, 7970),
     (aux_sym_ERR_fb_variables_after_method_repeat1, 475), (aux_sym_func_decl_repeat1, 7194),
     (aux_sym_func_decl_repeat2, 2991), (aux_sym_fb_decl_repeat3, 476), (aux_sym_SFC_repeat1, 7612),
     (aux_sym_stmt_list_repeat1, 2024), (aux_sym_ladder_diagram_repeat1, 8009),
     (aux_sym_fb_diagram_repeat1, 8013), (sym_identifier, 298),
     (aux_sym_ERR_unexpected_this_in_path_token1, 304),
     (aux_sym_ERR_unexpected_super_in_path_token1, 306), (sym_line_comment, 3),
     (anon_sym_LBRACE, 308), (aux_sym_test_pragma_token1, 9), (aux_sym_once_pragma_token1, 11),
     (aux_sym_must_call_pragma_token1, 13), (aux_sym_export_pragma_token1, 15),
     (anon_sym_SEMI, 310), (anon_sym_PERCENT, 312), (aux_sym_input_decls_token1, 314),
     (aux_sym_output_decls_token1, 316), (aux_sym_in_out_decls_token1, 318),
     (aux_sym_var_decls_token1, 320), (aux_sym_temp_var_decls_token1, 322),
     (aux_sym_external_var_decls_token1, 324), (aux_sym_global_var_decls_token1, 326),
     (aux_sym_fb_decl_token4, 764), (aux_sym_method_decl_token1, 330),
     (aux_sym_prog_access_decls_token1, 332), (aux_sym_initial_step_token1, 334),
     (aux_sym_config_init_token1, 336), (aux_sym_using_directive_token1, 338),
     (aux_sym__stmt_token1, 340), (aux_sym__stmt_token2, 340), (aux_sym__stmt_token3, 340),
     (aux_sym_if_stmt_token1, 342), (aux_sym_case_stmt_token1, 344), (aux_sym_for_stmt_token1, 346),
     (aux_sym_while_stmt_token1, 348), (aux_sym_repeat_stmt_token1, 350),
     (aux_sym_raise_stmt_token1, 352), (aux_sym_try_stmt_token1, 354),
     (aux_sym_try_stmt_token2, 356), (aux_sym_catch_clause_token1, 356),
     (aux_sym_finally_clause_token1, 356), (sym_ld_rung, 358), (sym_fbd_network, 360),
     (sym_c_style_comment, 3), (sym_pascal_style_comment, 3), (sym_pragma, 3)]"

lemma ts_parse_row_217_scan: "row_scan tokens_63_2 0 ts_parse_row_217 = Some (Suc (Suc (Suc (Suc 0))))"
  unfolding ts_parse_row_217_def by simp

text \<open>Lines 79582 to 79697.\<close>

definition ts_parse_row_218 :: parse_row where
  "ts_parse_row_218 =
    [(sym_ERR_assign_func_call, 7530), (sym_ERR_unexpected_this_in_path, 2372),
     (sym_ERR_unexpected_super_in_path, 2372), (sym_ERR_fb_variables_after_method, 1402),
     (sym_ERR_var_access_not_allowed, 3160), (sym_ERR_var_config_not_allowed, 3160),
     (sym_ERR_var_global_not_allowed, 3160), (sym_ERR_method_decl_in_body, 3150),
     (sym_extern_pragma, 7490), (sym_wasm_pragma, 3150), (sym_warn_pragma, 7490),
     (sym_allow_pragma, 3140), (sym_test_pragma, 7490), (sym_once_pragma, 7490),
     (sym_must_call_pragma, 7490), (sym_export_pragma, 7490), (sym_pou_pragma, 7194),
     (sym_direct_variable, 7675), (sym_deref_expression, 2373), (sym_variable, 7599),
     (sym_var_access, 2373), (sym_in_out_decls, 3160), (sym_var_decls, 3160),
     (sym_retain_var_decls, 3160), (sym_temp_var_decls, 3160), (sym_external_var_decls, 3160),
     (sym_global_var_decls, 2947), (sym_loc_partly_var_decl, 3160), (sym__fb_variables, 636),
     (sym_fb_input_decls, 3160), (sym_fb_output_decls, 3160), (sym_no_retain_var_decls, 3160),
     (sym_fb_body, 9187), (sym_method_decl, 637), (sym_prog_access_decls, 3043), (sym_SFC, 7970),
     (sym_SFC_network, 7612), (sym_initial_step, 7439), (sym_config_init, 3047),
     (sym_using_directive, 2991), (sym_variable_access, 7530), (sym_func_call, 2961),
     (sym_stmt_list, 7970), (sym__stmt, 2024), (sym_assign, 3150), (sym_if_stmt, 3150),
     (sym_case_stmt, 3150), (sym_for_stmt, 3150), (sym_while_stmt, 3150), (sym_repeat_stmt, 3150),
     (sym_raise_stmt, 3150), (sym_try_stmt, 3150), (sym_ERR_clause_outside_try, 3150),
     (sym_begin_path_expression, 2943), (sym_invocation, 2934), (sym_any_invocation, 2935),
     (sym_this_invocation, 2641), (sym_super_invocation, 2641), (sym_super_body_invocation, 2935),
     (sym_path_expression, 2627), (sym_field_expression, 2373), (sym_index_expression, 2373),
     (sym_ladder_diagram, 7970), (sym_fb_diagram, 7970),
     (aux_sym_ERR_fb_variables_after_method_repeat1, 636), (aux_sym_func_decl_repeat1, 7194),
     (aux_sym_func_decl_repeat2, 2991), (aux_sym_fb_decl_repeat3, 637), (aux_sym_SFC_repeat1, 7612),
     (aux_sym_stmt_list_repeat1, 2024), (aux_sym_ladder_diagram_repeat1, 8009),
     (aux_sym_fb_diagram_repeat1, 8013), (sym_identifier, 298),
     (aux_sym_ERR_unexpected_this_in_path_token1, 304),
     (aux_sym_ERR_unexpected_super_in_path_token1, 306), (sym_line_comment, 3),
     (anon_sym_LBRACE, 308), (aux_sym_test_pragma_token1, 9), (aux_sym_once_pragma_token1, 11),
     (aux_sym_must_call_pragma_token1, 13), (aux_sym_export_pragma_token1, 15),
     (anon_sym_SEMI, 310), (anon_sym_PERCENT, 312), (aux_sym_input_decls_token1, 314),
     (aux_sym_output_decls_token1, 316), (aux_sym_in_out_decls_token1, 318),
     (aux_sym_var_decls_token1, 320), (aux_sym_temp_var_decls_token1, 322),
     (aux_sym_external_var_decls_token1, 324), (aux_sym_global_var_decls_token1, 326),
     (aux_sym_fb_decl_token4, 766), (aux_sym_method_decl_token1, 330),
     (aux_sym_prog_access_decls_token1, 332), (aux_sym_initial_step_token1, 334),
     (aux_sym_config_init_token1, 336), (aux_sym_using_directive_token1, 338),
     (aux_sym__stmt_token1, 340), (aux_sym__stmt_token2, 340), (aux_sym__stmt_token3, 340),
     (aux_sym_if_stmt_token1, 342), (aux_sym_case_stmt_token1, 344), (aux_sym_for_stmt_token1, 346),
     (aux_sym_while_stmt_token1, 348), (aux_sym_repeat_stmt_token1, 350),
     (aux_sym_raise_stmt_token1, 352), (aux_sym_try_stmt_token1, 354),
     (aux_sym_try_stmt_token2, 356), (aux_sym_catch_clause_token1, 356),
     (aux_sym_finally_clause_token1, 356), (sym_ld_rung, 358), (sym_fbd_network, 360),
     (sym_c_style_comment, 3), (sym_pascal_style_comment, 3), (sym_pragma, 3)]"

lemma ts_parse_row_218_scan: "row_scan tokens_63_2 0 ts_parse_row_218 = Some (Suc (Suc (Suc (Suc 0))))"
  unfolding ts_parse_row_218_def by simp

text \<open>Lines 79698 to 79813.\<close>

definition ts_parse_row_219 :: parse_row where
  "ts_parse_row_219 =
    [(sym_ERR_assign_func_call, 7530), (sym_ERR_unexpected_this_in_path, 2372),
     (sym_ERR_unexpected_super_in_path, 2372), (sym_ERR_fb_variables_after_method, 1985),
     (sym_ERR_var_access_not_allowed, 3160), (sym_ERR_var_config_not_allowed, 3160),
     (sym_ERR_var_global_not_allowed, 3160), (sym_ERR_method_decl_in_body, 3150),
     (sym_extern_pragma, 7490), (sym_wasm_pragma, 3150), (sym_warn_pragma, 7490),
     (sym_allow_pragma, 3140), (sym_test_pragma, 7490), (sym_once_pragma, 7490),
     (sym_must_call_pragma, 7490), (sym_export_pragma, 7490), (sym_pou_pragma, 7194),
     (sym_direct_variable, 7675), (sym_deref_expression, 2373), (sym_variable, 7599),
     (sym_var_access, 2373), (sym_in_out_decls, 3160), (sym_var_decls, 3160),
     (sym_retain_var_decls, 3160), (sym_temp_var_decls, 3160), (sym_external_var_decls, 3160),
     (sym_global_var_decls, 2947), (sym_loc_partly_var_decl, 3160), (sym__fb_variables, 316),
     (sym_fb_input_decls, 3160), (sym_fb_output_decls, 3160), (sym_no_retain_var_decls, 3160),
     (sym_fb_body, 8786), (sym_method_decl, 317), (sym_prog_access_decls, 3043), (sym_SFC, 7970),
     (sym_SFC_network, 7612), (sym_initial_step, 7439), (sym_config_init, 3047),
     (sym_using_directive, 2991), (sym_variable_access, 7530), (sym_func_call, 2961),
     (sym_stmt_list, 7970), (sym__stmt, 2024), (sym_assign, 3150), (sym_if_stmt, 3150),
     (sym_case_stmt, 3150), (sym_for_stmt, 3150), (sym_while_stmt, 3150), (sym_repeat_stmt, 3150),
     (sym_raise_stmt, 3150), (sym_try_stmt, 3150), (sym_ERR_clause_outside_try, 3150),
     (sym_begin_path_expression, 2943), (sym_invocation, 2934), (sym_any_invocation, 2935),
     (sym_this_invocation, 2641), (sym_super_invocation, 2641), (sym_super_body_invocation, 2935),
     (sym_path_expression, 2627), (sym_field_expression, 2373), (sym_index_expression, 2373),
     (sym_ladder_diagram, 7970), (sym_fb_diagram, 7970),
     (aux_sym_ERR_fb_variables_after_method_repeat1, 316), (aux_sym_func_decl_repeat1, 7194),
     (aux_sym_func_decl_repeat2, 2991), (aux_sym_fb_decl_repeat3, 317), (aux_sym_SFC_repeat1, 7612),
     (aux_sym_stmt_list_repeat1, 2024), (aux_sym_ladder_diagram_repeat1, 8009),
     (aux_sym_fb_diagram_repeat1, 8013), (sym_identifier, 298),
     (aux_sym_ERR_unexpected_this_in_path_token1, 304),
     (aux_sym_ERR_unexpected_super_in_path_token1, 306), (sym_line_comment, 3),
     (anon_sym_LBRACE, 308), (aux_sym_test_pragma_token1, 9), (aux_sym_once_pragma_token1, 11),
     (aux_sym_must_call_pragma_token1, 13), (aux_sym_export_pragma_token1, 15),
     (anon_sym_SEMI, 310), (anon_sym_PERCENT, 312), (aux_sym_input_decls_token1, 314),
     (aux_sym_output_decls_token1, 316), (aux_sym_in_out_decls_token1, 318),
     (aux_sym_var_decls_token1, 320), (aux_sym_temp_var_decls_token1, 322),
     (aux_sym_external_var_decls_token1, 324), (aux_sym_global_var_decls_token1, 326),
     (aux_sym_fb_decl_token4, 768), (aux_sym_method_decl_token1, 330),
     (aux_sym_prog_access_decls_token1, 332), (aux_sym_initial_step_token1, 334),
     (aux_sym_config_init_token1, 336), (aux_sym_using_directive_token1, 338),
     (aux_sym__stmt_token1, 340), (aux_sym__stmt_token2, 340), (aux_sym__stmt_token3, 340),
     (aux_sym_if_stmt_token1, 342), (aux_sym_case_stmt_token1, 344), (aux_sym_for_stmt_token1, 346),
     (aux_sym_while_stmt_token1, 348), (aux_sym_repeat_stmt_token1, 350),
     (aux_sym_raise_stmt_token1, 352), (aux_sym_try_stmt_token1, 354),
     (aux_sym_try_stmt_token2, 356), (aux_sym_catch_clause_token1, 356),
     (aux_sym_finally_clause_token1, 356), (sym_ld_rung, 358), (sym_fbd_network, 360),
     (sym_c_style_comment, 3), (sym_pascal_style_comment, 3), (sym_pragma, 3)]"

lemma ts_parse_row_219_scan: "row_scan tokens_63_2 0 ts_parse_row_219 = Some (Suc (Suc (Suc (Suc 0))))"
  unfolding ts_parse_row_219_def by simp

text \<open>Lines 79814 to 79929.\<close>

definition ts_parse_row_220 :: parse_row where
  "ts_parse_row_220 =
    [(sym_ERR_assign_func_call, 7530), (sym_ERR_unexpected_this_in_path, 2372),
     (sym_ERR_unexpected_super_in_path, 2372), (sym_ERR_fb_variables_after_method, 1636),
     (sym_ERR_var_access_not_allowed, 3160), (sym_ERR_var_config_not_allowed, 3160),
     (sym_ERR_var_global_not_allowed, 3160), (sym_ERR_method_decl_in_body, 3150),
     (sym_extern_pragma, 7490), (sym_wasm_pragma, 3150), (sym_warn_pragma, 7490),
     (sym_allow_pragma, 3140), (sym_test_pragma, 7490), (sym_once_pragma, 7490),
     (sym_must_call_pragma, 7490), (sym_export_pragma, 7490), (sym_pou_pragma, 7194),
     (sym_direct_variable, 7675), (sym_deref_expression, 2373), (sym_variable, 7599),
     (sym_var_access, 2373), (sym_in_out_decls, 3160), (sym_var_decls, 3160),
     (sym_retain_var_decls, 3160), (sym_temp_var_decls, 3160), (sym_external_var_decls, 3160),
     (sym_global_var_decls, 2947), (sym_loc_partly_var_decl, 3160), (sym__fb_variables, 349),
     (sym_fb_input_decls, 3160), (sym_fb_output_decls, 3160), (sym_no_retain_var_decls, 3160),
     (sym_fb_body, 8886), (sym_method_decl, 350), (sym_prog_access_decls, 3043), (sym_SFC, 7970),
     (sym_SFC_network, 7612), (sym_initial_step, 7439), (sym_config_init, 3047),
     (sym_using_directive, 2991), (sym_variable_access, 7530), (sym_func_call, 2961),
     (sym_stmt_list, 7970), (sym__stmt, 2024), (sym_assign, 3150), (sym_if_stmt, 3150),
     (sym_case_stmt, 3150), (sym_for_stmt, 3150), (sym_while_stmt, 3150), (sym_repeat_stmt, 3150),
     (sym_raise_stmt, 3150), (sym_try_stmt, 3150), (sym_ERR_clause_outside_try, 3150),
     (sym_begin_path_expression, 2943), (sym_invocation, 2934), (sym_any_invocation, 2935),
     (sym_this_invocation, 2641), (sym_super_invocation, 2641), (sym_super_body_invocation, 2935),
     (sym_path_expression, 2627), (sym_field_expression, 2373), (sym_index_expression, 2373),
     (sym_ladder_diagram, 7970), (sym_fb_diagram, 7970),
     (aux_sym_ERR_fb_variables_after_method_repeat1, 349), (aux_sym_func_decl_repeat1, 7194),
     (aux_sym_func_decl_repeat2, 2991), (aux_sym_fb_decl_repeat3, 350), (aux_sym_SFC_repeat1, 7612),
     (aux_sym_stmt_list_repeat1, 2024), (aux_sym_ladder_diagram_repeat1, 8009),
     (aux_sym_fb_diagram_repeat1, 8013), (sym_identifier, 298),
     (aux_sym_ERR_unexpected_this_in_path_token1, 304),
     (aux_sym_ERR_unexpected_super_in_path_token1, 306), (sym_line_comment, 3),
     (anon_sym_LBRACE, 308), (aux_sym_test_pragma_token1, 9), (aux_sym_once_pragma_token1, 11),
     (aux_sym_must_call_pragma_token1, 13), (aux_sym_export_pragma_token1, 15),
     (anon_sym_SEMI, 310), (anon_sym_PERCENT, 312), (aux_sym_input_decls_token1, 314),
     (aux_sym_output_decls_token1, 316), (aux_sym_in_out_decls_token1, 318),
     (aux_sym_var_decls_token1, 320), (aux_sym_temp_var_decls_token1, 322),
     (aux_sym_external_var_decls_token1, 324), (aux_sym_global_var_decls_token1, 326),
     (aux_sym_fb_decl_token4, 770), (aux_sym_method_decl_token1, 330),
     (aux_sym_prog_access_decls_token1, 332), (aux_sym_initial_step_token1, 334),
     (aux_sym_config_init_token1, 336), (aux_sym_using_directive_token1, 338),
     (aux_sym__stmt_token1, 340), (aux_sym__stmt_token2, 340), (aux_sym__stmt_token3, 340),
     (aux_sym_if_stmt_token1, 342), (aux_sym_case_stmt_token1, 344), (aux_sym_for_stmt_token1, 346),
     (aux_sym_while_stmt_token1, 348), (aux_sym_repeat_stmt_token1, 350),
     (aux_sym_raise_stmt_token1, 352), (aux_sym_try_stmt_token1, 354),
     (aux_sym_try_stmt_token2, 356), (aux_sym_catch_clause_token1, 356),
     (aux_sym_finally_clause_token1, 356), (sym_ld_rung, 358), (sym_fbd_network, 360),
     (sym_c_style_comment, 3), (sym_pascal_style_comment, 3), (sym_pragma, 3)]"

lemma ts_parse_row_220_scan: "row_scan tokens_63_2 0 ts_parse_row_220 = Some (Suc (Suc (Suc (Suc 0))))"
  unfolding ts_parse_row_220_def by simp

text \<open>Lines 79930 to 80045.\<close>

definition ts_parse_row_221 :: parse_row where
  "ts_parse_row_221 =
    [(sym_ERR_assign_func_call, 7530), (sym_ERR_unexpected_this_in_path, 2372),
     (sym_ERR_unexpected_super_in_path, 2372), (sym_ERR_fb_variables_after_method, 1417),
     (sym_ERR_var_access_not_allowed, 3160), (sym_ERR_var_config_not_allowed, 3160),
     (sym_ERR_var_global_not_allowed, 3160), (sym_ERR_method_decl_in_body, 3150),
     (sym_extern_pragma, 7490), (sym_wasm_pragma, 3150), (sym_warn_pragma, 7490),
     (sym_allow_pragma, 3140), (sym_test_pragma, 7490), (sym_once_pragma, 7490),
     (sym_must_call_pragma, 7490), (sym_export_pragma, 7490), (sym_pou_pragma, 7194),
     (sym_direct_variable, 7675), (sym_deref_expression, 2373), (sym_variable, 7599),
     (sym_var_access, 2373), (sym_in_out_decls, 3160), (sym_var_decls, 3160),
     (sym_retain_var_decls, 3160), (sym_temp_var_decls, 3160), (sym_external_var_decls, 3160),
     (sym_global_var_decls, 2947), (sym_loc_partly_var_decl, 3160), (sym__fb_variables, 647),
     (sym_fb_input_decls, 3160), (sym_fb_output_decls, 3160), (sym_no_retain_var_decls, 3160),
     (sym_fb_body, 9404), (sym_method_decl, 648), (sym_prog_access_decls, 3043), (sym_SFC, 7970),
     (sym_SFC_network, 7612), (sym_initial_step, 7439), (sym_config_init, 3047),
     (sym_using_directive, 2991), (sym_variable_access, 7530), (sym_func_call, 2961),
     (sym_stmt_list, 7970), (sym__stmt, 2024), (sym_assign, 3150), (sym_if_stmt, 3150),
     (sym_case_stmt, 3150), (sym_for_stmt, 3150), (sym_while_stmt, 3150), (sym_repeat_stmt, 3150),
     (sym_raise_stmt, 3150), (sym_try_stmt, 3150), (sym_ERR_clause_outside_try, 3150),
     (sym_begin_path_expression, 2943), (sym_invocation, 2934), (sym_any_invocation, 2935),
     (sym_this_invocation, 2641), (sym_super_invocation, 2641), (sym_super_body_invocation, 2935),
     (sym_path_expression, 2627), (sym_field_expression, 2373), (sym_index_expression, 2373),
     (sym_ladder_diagram, 7970), (sym_fb_diagram, 7970),
     (aux_sym_ERR_fb_variables_after_method_repeat1, 647), (aux_sym_func_decl_repeat1, 7194),
     (aux_sym_func_decl_repeat2, 2991), (aux_sym_fb_decl_repeat3, 648), (aux_sym_SFC_repeat1, 7612),
     (aux_sym_stmt_list_repeat1, 2024), (aux_sym_ladder_diagram_repeat1, 8009),
     (aux_sym_fb_diagram_repeat1, 8013), (sym_identifier, 298),
     (aux_sym_ERR_unexpected_this_in_path_token1, 304),
     (aux_sym_ERR_unexpected_super_in_path_token1, 306), (sym_line_comment, 3),
     (anon_sym_LBRACE, 308), (aux_sym_test_pragma_token1, 9), (aux_sym_once_pragma_token1, 11),
     (aux_sym_must_call_pragma_token1, 13), (aux_sym_export_pragma_token1, 15),
     (anon_sym_SEMI, 310), (anon_sym_PERCENT, 312), (aux_sym_input_decls_token1, 314),
     (aux_sym_output_decls_token1, 316), (aux_sym_in_out_decls_token1, 318),
     (aux_sym_var_decls_token1, 320), (aux_sym_temp_var_decls_token1, 322),
     (aux_sym_external_var_decls_token1, 324), (aux_sym_global_var_decls_token1, 326),
     (aux_sym_fb_decl_token4, 772), (aux_sym_method_decl_token1, 330),
     (aux_sym_prog_access_decls_token1, 332), (aux_sym_initial_step_token1, 334),
     (aux_sym_config_init_token1, 336), (aux_sym_using_directive_token1, 338),
     (aux_sym__stmt_token1, 340), (aux_sym__stmt_token2, 340), (aux_sym__stmt_token3, 340),
     (aux_sym_if_stmt_token1, 342), (aux_sym_case_stmt_token1, 344), (aux_sym_for_stmt_token1, 346),
     (aux_sym_while_stmt_token1, 348), (aux_sym_repeat_stmt_token1, 350),
     (aux_sym_raise_stmt_token1, 352), (aux_sym_try_stmt_token1, 354),
     (aux_sym_try_stmt_token2, 356), (aux_sym_catch_clause_token1, 356),
     (aux_sym_finally_clause_token1, 356), (sym_ld_rung, 358), (sym_fbd_network, 360),
     (sym_c_style_comment, 3), (sym_pascal_style_comment, 3), (sym_pragma, 3)]"

lemma ts_parse_row_221_scan: "row_scan tokens_63_2 0 ts_parse_row_221 = Some (Suc (Suc (Suc (Suc 0))))"
  unfolding ts_parse_row_221_def by simp

text \<open>Lines 80046 to 80161.\<close>

definition ts_parse_row_222 :: parse_row where
  "ts_parse_row_222 =
    [(sym_ERR_assign_func_call, 7530), (sym_ERR_unexpected_this_in_path, 2372),
     (sym_ERR_unexpected_super_in_path, 2372), (sym_ERR_fb_variables_after_method, 1425),
     (sym_ERR_var_access_not_allowed, 3160), (sym_ERR_var_config_not_allowed, 3160),
     (sym_ERR_var_global_not_allowed, 3160), (sym_ERR_method_decl_in_body, 3150),
     (sym_extern_pragma, 7490), (sym_wasm_pragma, 3150), (sym_warn_pragma, 7490),
     (sym_allow_pragma, 3140), (sym_test_pragma, 7490), (sym_once_pragma, 7490),
     (sym_must_call_pragma, 7490), (sym_export_pragma, 7490), (sym_pou_pragma, 7194),
     (sym_direct_variable, 7675), (sym_deref_expression, 2373), (sym_variable, 7599),
     (sym_var_access, 2373), (sym_in_out_decls, 3160), (sym_var_decls, 3160),
     (sym_retain_var_decls, 3160), (sym_temp_var_decls, 3160), (sym_external_var_decls, 3160),
     (sym_global_var_decls, 2947), (sym_loc_partly_var_decl, 3160), (sym__fb_variables, 651),
     (sym_fb_input_decls, 3160), (sym_fb_output_decls, 3160), (sym_no_retain_var_decls, 3160),
     (sym_fb_body, 9602), (sym_method_decl, 652), (sym_prog_access_decls, 3043), (sym_SFC, 7970),
     (sym_SFC_network, 7612), (sym_initial_step, 7439), (sym_config_init, 3047),
     (sym_using_directive, 2991), (sym_variable_access, 7530), (sym_func_call, 2961),
     (sym_stmt_list, 7970), (sym__stmt, 2024), (sym_assign, 3150), (sym_if_stmt, 3150),
     (sym_case_stmt, 3150), (sym_for_stmt, 3150), (sym_while_stmt, 3150), (sym_repeat_stmt, 3150),
     (sym_raise_stmt, 3150), (sym_try_stmt, 3150), (sym_ERR_clause_outside_try, 3150),
     (sym_begin_path_expression, 2943), (sym_invocation, 2934), (sym_any_invocation, 2935),
     (sym_this_invocation, 2641), (sym_super_invocation, 2641), (sym_super_body_invocation, 2935),
     (sym_path_expression, 2627), (sym_field_expression, 2373), (sym_index_expression, 2373),
     (sym_ladder_diagram, 7970), (sym_fb_diagram, 7970),
     (aux_sym_ERR_fb_variables_after_method_repeat1, 651), (aux_sym_func_decl_repeat1, 7194),
     (aux_sym_func_decl_repeat2, 2991), (aux_sym_fb_decl_repeat3, 652), (aux_sym_SFC_repeat1, 7612),
     (aux_sym_stmt_list_repeat1, 2024), (aux_sym_ladder_diagram_repeat1, 8009),
     (aux_sym_fb_diagram_repeat1, 8013), (sym_identifier, 298),
     (aux_sym_ERR_unexpected_this_in_path_token1, 304),
     (aux_sym_ERR_unexpected_super_in_path_token1, 306), (sym_line_comment, 3),
     (anon_sym_LBRACE, 308), (aux_sym_test_pragma_token1, 9), (aux_sym_once_pragma_token1, 11),
     (aux_sym_must_call_pragma_token1, 13), (aux_sym_export_pragma_token1, 15),
     (anon_sym_SEMI, 310), (anon_sym_PERCENT, 312), (aux_sym_input_decls_token1, 314),
     (aux_sym_output_decls_token1, 316), (aux_sym_in_out_decls_token1, 318),
     (aux_sym_var_decls_token1, 320), (aux_sym_temp_var_decls_token1, 322),
     (aux_sym_external_var_decls_token1, 324), (aux_sym_global_var_decls_token1, 326),
     (aux_sym_fb_decl_token4, 774), (aux_sym_method_decl_token1, 330),
     (aux_sym_prog_access_decls_token1, 332), (aux_sym_initial_step_token1, 334),
     (aux_sym_config_init_token1, 336), (aux_sym_using_directive_token1, 338),
     (aux_sym__stmt_token1, 340), (aux_sym__stmt_token2, 340), (aux_sym__stmt_token3, 340),
     (aux_sym_if_stmt_token1, 342), (aux_sym_case_stmt_token1, 344), (aux_sym_for_stmt_token1, 346),
     (aux_sym_while_stmt_token1, 348), (aux_sym_repeat_stmt_token1, 350),
     (aux_sym_raise_stmt_token1, 352), (aux_sym_try_stmt_token1, 354),
     (aux_sym_try_stmt_token2, 356), (aux_sym_catch_clause_token1, 356),
     (aux_sym_finally_clause_token1, 356), (sym_ld_rung, 358), (sym_fbd_network, 360),
     (sym_c_style_comment, 3), (sym_pascal_style_comment, 3), (sym_pragma, 3)]"

lemma ts_parse_row_222_scan: "row_scan tokens_63_2 0 ts_parse_row_222 = Some (Suc (Suc (Suc (Suc 0))))"
  unfolding ts_parse_row_222_def by simp

text \<open>Lines 80162 to 80277.\<close>

definition ts_parse_row_223 :: parse_row where
  "ts_parse_row_223 =
    [(sym_ERR_assign_func_call, 7530), (sym_ERR_unexpected_this_in_path, 2372),
     (sym_ERR_unexpected_super_in_path, 2372), (sym_ERR_fb_variables_after_method, 1437),
     (sym_ERR_var_access_not_allowed, 3160), (sym_ERR_var_config_not_allowed, 3160),
     (sym_ERR_var_global_not_allowed, 3160), (sym_ERR_method_decl_in_body, 3150),
     (sym_extern_pragma, 7490), (sym_wasm_pragma, 3150), (sym_warn_pragma, 7490),
     (sym_allow_pragma, 3140), (sym_test_pragma, 7490), (sym_once_pragma, 7490),
     (sym_must_call_pragma, 7490), (sym_export_pragma, 7490), (sym_pou_pragma, 7194),
     (sym_direct_variable, 7675), (sym_deref_expression, 2373), (sym_variable, 7599),
     (sym_var_access, 2373), (sym_in_out_decls, 3160), (sym_var_decls, 3160),
     (sym_retain_var_decls, 3160), (sym_temp_var_decls, 3160), (sym_external_var_decls, 3160),
     (sym_global_var_decls, 2947), (sym_loc_partly_var_decl, 3160), (sym__fb_variables, 656),
     (sym_fb_input_decls, 3160), (sym_fb_output_decls, 3160), (sym_no_retain_var_decls, 3160),
     (sym_fb_body, 9892), (sym_method_decl, 657), (sym_prog_access_decls, 3043), (sym_SFC, 7970),
     (sym_SFC_network, 7612), (sym_initial_step, 7439), (sym_config_init, 3047),
     (sym_using_directive, 2991), (sym_variable_access, 7530), (sym_func_call, 2961),
     (sym_stmt_list, 7970), (sym__stmt, 2024), (sym_assign, 3150), (sym_if_stmt, 3150),
     (sym_case_stmt, 3150), (sym_for_stmt, 3150), (sym_while_stmt, 3150), (sym_repeat_stmt, 3150),
     (sym_raise_stmt, 3150), (sym_try_stmt, 3150), (sym_ERR_clause_outside_try, 3150),
     (sym_begin_path_expression, 2943), (sym_invocation, 2934), (sym_any_invocation, 2935),
     (sym_this_invocation, 2641), (sym_super_invocation, 2641), (sym_super_body_invocation, 2935),
     (sym_path_expression, 2627), (sym_field_expression, 2373), (sym_index_expression, 2373),
     (sym_ladder_diagram, 7970), (sym_fb_diagram, 7970),
     (aux_sym_ERR_fb_variables_after_method_repeat1, 656), (aux_sym_func_decl_repeat1, 7194),
     (aux_sym_func_decl_repeat2, 2991), (aux_sym_fb_decl_repeat3, 657), (aux_sym_SFC_repeat1, 7612),
     (aux_sym_stmt_list_repeat1, 2024), (aux_sym_ladder_diagram_repeat1, 8009),
     (aux_sym_fb_diagram_repeat1, 8013), (sym_identifier, 298),
     (aux_sym_ERR_unexpected_this_in_path_token1, 304),
     (aux_sym_ERR_unexpected_super_in_path_token1, 306), (sym_line_comment, 3),
     (anon_sym_LBRACE, 308), (aux_sym_test_pragma_token1, 9), (aux_sym_once_pragma_token1, 11),
     (aux_sym_must_call_pragma_token1, 13), (aux_sym_export_pragma_token1, 15),
     (anon_sym_SEMI, 310), (anon_sym_PERCENT, 312), (aux_sym_input_decls_token1, 314),
     (aux_sym_output_decls_token1, 316), (aux_sym_in_out_decls_token1, 318),
     (aux_sym_var_decls_token1, 320), (aux_sym_temp_var_decls_token1, 322),
     (aux_sym_external_var_decls_token1, 324), (aux_sym_global_var_decls_token1, 326),
     (aux_sym_fb_decl_token4, 776), (aux_sym_method_decl_token1, 330),
     (aux_sym_prog_access_decls_token1, 332), (aux_sym_initial_step_token1, 334),
     (aux_sym_config_init_token1, 336), (aux_sym_using_directive_token1, 338),
     (aux_sym__stmt_token1, 340), (aux_sym__stmt_token2, 340), (aux_sym__stmt_token3, 340),
     (aux_sym_if_stmt_token1, 342), (aux_sym_case_stmt_token1, 344), (aux_sym_for_stmt_token1, 346),
     (aux_sym_while_stmt_token1, 348), (aux_sym_repeat_stmt_token1, 350),
     (aux_sym_raise_stmt_token1, 352), (aux_sym_try_stmt_token1, 354),
     (aux_sym_try_stmt_token2, 356), (aux_sym_catch_clause_token1, 356),
     (aux_sym_finally_clause_token1, 356), (sym_ld_rung, 358), (sym_fbd_network, 360),
     (sym_c_style_comment, 3), (sym_pascal_style_comment, 3), (sym_pragma, 3)]"

lemma ts_parse_row_223_scan: "row_scan tokens_63_2 0 ts_parse_row_223 = Some (Suc (Suc (Suc (Suc 0))))"
  unfolding ts_parse_row_223_def by simp

text \<open>Lines 80278 to 80393.\<close>

definition ts_parse_row_224 :: parse_row where
  "ts_parse_row_224 =
    [(sym_ERR_assign_func_call, 7530), (sym_ERR_unexpected_this_in_path, 2372),
     (sym_ERR_unexpected_super_in_path, 2372), (sym_ERR_fb_variables_after_method, 1448),
     (sym_ERR_var_access_not_allowed, 3160), (sym_ERR_var_config_not_allowed, 3160),
     (sym_ERR_var_global_not_allowed, 3160), (sym_ERR_method_decl_in_body, 3150),
     (sym_extern_pragma, 7490), (sym_wasm_pragma, 3150), (sym_warn_pragma, 7490),
     (sym_allow_pragma, 3140), (sym_test_pragma, 7490), (sym_once_pragma, 7490),
     (sym_must_call_pragma, 7490), (sym_export_pragma, 7490), (sym_pou_pragma, 7194),
     (sym_direct_variable, 7675), (sym_deref_expression, 2373), (sym_variable, 7599),
     (sym_var_access, 2373), (sym_in_out_decls, 3160), (sym_var_decls, 3160),
     (sym_retain_var_decls, 3160), (sym_temp_var_decls, 3160), (sym_external_var_decls, 3160),
     (sym_global_var_decls, 2947), (sym_loc_partly_var_decl, 3160), (sym__fb_variables, 660),
     (sym_fb_input_decls, 3160), (sym_fb_output_decls, 3160), (sym_no_retain_var_decls, 3160),
     (sym_fb_body, 10031), (sym_method_decl, 661), (sym_prog_access_decls, 3043), (sym_SFC, 7970),
     (sym_SFC_network, 7612), (sym_initial_step, 7439), (sym_config_init, 3047),
     (sym_using_directive, 2991), (sym_variable_access, 7530), (sym_func_call, 2961),
     (sym_stmt_list, 7970), (sym__stmt, 2024), (sym_assign, 3150), (sym_if_stmt, 3150),
     (sym_case_stmt, 3150), (sym_for_stmt, 3150), (sym_while_stmt, 3150), (sym_repeat_stmt, 3150),
     (sym_raise_stmt, 3150), (sym_try_stmt, 3150), (sym_ERR_clause_outside_try, 3150),
     (sym_begin_path_expression, 2943), (sym_invocation, 2934), (sym_any_invocation, 2935),
     (sym_this_invocation, 2641), (sym_super_invocation, 2641), (sym_super_body_invocation, 2935),
     (sym_path_expression, 2627), (sym_field_expression, 2373), (sym_index_expression, 2373),
     (sym_ladder_diagram, 7970), (sym_fb_diagram, 7970),
     (aux_sym_ERR_fb_variables_after_method_repeat1, 660), (aux_sym_func_decl_repeat1, 7194),
     (aux_sym_func_decl_repeat2, 2991), (aux_sym_fb_decl_repeat3, 661), (aux_sym_SFC_repeat1, 7612),
     (aux_sym_stmt_list_repeat1, 2024), (aux_sym_ladder_diagram_repeat1, 8009),
     (aux_sym_fb_diagram_repeat1, 8013), (sym_identifier, 298),
     (aux_sym_ERR_unexpected_this_in_path_token1, 304),
     (aux_sym_ERR_unexpected_super_in_path_token1, 306), (sym_line_comment, 3),
     (anon_sym_LBRACE, 308), (aux_sym_test_pragma_token1, 9), (aux_sym_once_pragma_token1, 11),
     (aux_sym_must_call_pragma_token1, 13), (aux_sym_export_pragma_token1, 15),
     (anon_sym_SEMI, 310), (anon_sym_PERCENT, 312), (aux_sym_input_decls_token1, 314),
     (aux_sym_output_decls_token1, 316), (aux_sym_in_out_decls_token1, 318),
     (aux_sym_var_decls_token1, 320), (aux_sym_temp_var_decls_token1, 322),
     (aux_sym_external_var_decls_token1, 324), (aux_sym_global_var_decls_token1, 326),
     (aux_sym_fb_decl_token4, 778), (aux_sym_method_decl_token1, 330),
     (aux_sym_prog_access_decls_token1, 332), (aux_sym_initial_step_token1, 334),
     (aux_sym_config_init_token1, 336), (aux_sym_using_directive_token1, 338),
     (aux_sym__stmt_token1, 340), (aux_sym__stmt_token2, 340), (aux_sym__stmt_token3, 340),
     (aux_sym_if_stmt_token1, 342), (aux_sym_case_stmt_token1, 344), (aux_sym_for_stmt_token1, 346),
     (aux_sym_while_stmt_token1, 348), (aux_sym_repeat_stmt_token1, 350),
     (aux_sym_raise_stmt_token1, 352), (aux_sym_try_stmt_token1, 354),
     (aux_sym_try_stmt_token2, 356), (aux_sym_catch_clause_token1, 356),
     (aux_sym_finally_clause_token1, 356), (sym_ld_rung, 358), (sym_fbd_network, 360),
     (sym_c_style_comment, 3), (sym_pascal_style_comment, 3), (sym_pragma, 3)]"

lemma ts_parse_row_224_scan: "row_scan tokens_63_2 0 ts_parse_row_224 = Some (Suc (Suc (Suc (Suc 0))))"
  unfolding ts_parse_row_224_def by simp

text \<open>Lines 80394 to 80509.\<close>

definition ts_parse_row_225 :: parse_row where
  "ts_parse_row_225 =
    [(sym_ERR_assign_func_call, 7530), (sym_ERR_unexpected_this_in_path, 2372),
     (sym_ERR_unexpected_super_in_path, 2372), (sym_ERR_fb_variables_after_method, 1452),
     (sym_ERR_var_access_not_allowed, 3160), (sym_ERR_var_config_not_allowed, 3160),
     (sym_ERR_var_global_not_allowed, 3160), (sym_ERR_method_decl_in_body, 3150),
     (sym_extern_pragma, 7490), (sym_wasm_pragma, 3150), (sym_warn_pragma, 7490),
     (sym_allow_pragma, 3140), (sym_test_pragma, 7490), (sym_once_pragma, 7490),
     (sym_must_call_pragma, 7490), (sym_export_pragma, 7490), (sym_pou_pragma, 7194),
     (sym_direct_variable, 7675), (sym_deref_expression, 2373), (sym_variable, 7599),
     (sym_var_access, 2373), (sym_in_out_decls, 3160), (sym_var_decls, 3160),
     (sym_retain_var_decls, 3160), (sym_temp_var_decls, 3160), (sym_external_var_decls, 3160),
     (sym_global_var_decls, 2947), (sym_loc_partly_var_decl, 3160), (sym__fb_variables, 663),
     (sym_fb_input_decls, 3160), (sym_fb_output_decls, 3160), (sym_no_retain_var_decls, 3160),
     (sym_fb_body, 10095), (sym_method_decl, 664), (sym_prog_access_decls, 3043), (sym_SFC, 7970),
     (sym_SFC_network, 7612), (sym_initial_step, 7439), (sym_config_init, 3047),
     (sym_using_directive, 2991), (sym_variable_access, 7530), (sym_func_call, 2961),
     (sym_stmt_list, 7970), (sym__stmt, 2024), (sym_assign, 3150), (sym_if_stmt, 3150),
     (sym_case_stmt, 3150), (sym_for_stmt, 3150), (sym_while_stmt, 3150), (sym_repeat_stmt, 3150),
     (sym_raise_stmt, 3150), (sym_try_stmt, 3150), (sym_ERR_clause_outside_try, 3150),
     (sym_begin_path_expression, 2943), (sym_invocation, 2934), (sym_any_invocation, 2935),
     (sym_this_invocation, 2641), (sym_super_invocation, 2641), (sym_super_body_invocation, 2935),
     (sym_path_expression, 2627), (sym_field_expression, 2373), (sym_index_expression, 2373),
     (sym_ladder_diagram, 7970), (sym_fb_diagram, 7970),
     (aux_sym_ERR_fb_variables_after_method_repeat1, 663), (aux_sym_func_decl_repeat1, 7194),
     (aux_sym_func_decl_repeat2, 2991), (aux_sym_fb_decl_repeat3, 664), (aux_sym_SFC_repeat1, 7612),
     (aux_sym_stmt_list_repeat1, 2024), (aux_sym_ladder_diagram_repeat1, 8009),
     (aux_sym_fb_diagram_repeat1, 8013), (sym_identifier, 298),
     (aux_sym_ERR_unexpected_this_in_path_token1, 304),
     (aux_sym_ERR_unexpected_super_in_path_token1, 306), (sym_line_comment, 3),
     (anon_sym_LBRACE, 308), (aux_sym_test_pragma_token1, 9), (aux_sym_once_pragma_token1, 11),
     (aux_sym_must_call_pragma_token1, 13), (aux_sym_export_pragma_token1, 15),
     (anon_sym_SEMI, 310), (anon_sym_PERCENT, 312), (aux_sym_input_decls_token1, 314),
     (aux_sym_output_decls_token1, 316), (aux_sym_in_out_decls_token1, 318),
     (aux_sym_var_decls_token1, 320), (aux_sym_temp_var_decls_token1, 322),
     (aux_sym_external_var_decls_token1, 324), (aux_sym_global_var_decls_token1, 326),
     (aux_sym_fb_decl_token4, 780), (aux_sym_method_decl_token1, 330),
     (aux_sym_prog_access_decls_token1, 332), (aux_sym_initial_step_token1, 334),
     (aux_sym_config_init_token1, 336), (aux_sym_using_directive_token1, 338),
     (aux_sym__stmt_token1, 340), (aux_sym__stmt_token2, 340), (aux_sym__stmt_token3, 340),
     (aux_sym_if_stmt_token1, 342), (aux_sym_case_stmt_token1, 344), (aux_sym_for_stmt_token1, 346),
     (aux_sym_while_stmt_token1, 348), (aux_sym_repeat_stmt_token1, 350),
     (aux_sym_raise_stmt_token1, 352), (aux_sym_try_stmt_token1, 354),
     (aux_sym_try_stmt_token2, 356), (aux_sym_catch_clause_token1, 356),
     (aux_sym_finally_clause_token1, 356), (sym_ld_rung, 358), (sym_fbd_network, 360),
     (sym_c_style_comment, 3), (sym_pascal_style_comment, 3), (sym_pragma, 3)]"

lemma ts_parse_row_225_scan: "row_scan tokens_63_2 0 ts_parse_row_225 = Some (Suc (Suc (Suc (Suc 0))))"
  unfolding ts_parse_row_225_def by simp

text \<open>Lines 80510 to 80625.\<close>

definition ts_parse_row_226 :: parse_row where
  "ts_parse_row_226 =
    [(sym_ERR_assign_func_call, 7530), (sym_ERR_unexpected_this_in_path, 2372),
     (sym_ERR_unexpected_super_in_path, 2372), (sym_ERR_fb_variables_after_method, 1878),
     (sym_ERR_var_access_not_allowed, 3160), (sym_ERR_var_config_not_allowed, 3160),
     (sym_ERR_var_global_not_allowed, 3160), (sym_ERR_method_decl_in_body, 3150),
     (sym_extern_pragma, 7490), (sym_wasm_pragma, 3150), (sym_warn_pragma, 7490),
     (sym_allow_pragma, 3140), (sym_test_pragma, 7490), (sym_once_pragma, 7490),
     (sym_must_call_pragma, 7490), (sym_export_pragma, 7490), (sym_pou_pragma, 7194),
     (sym_direct_variable, 7675), (sym_deref_expression, 2373), (sym_variable, 7599),
     (sym_var_access, 2373), (sym_in_out_decls, 3160), (sym_var_decls, 3160),
     (sym_retain_var_decls, 3160), (sym_temp_var_decls, 3160), (sym_external_var_decls, 3160),
     (sym_global_var_decls, 2947), (sym_loc_partly_var_decl, 3160), (sym__fb_variables, 409),
     (sym_fb_input_decls, 3160), (sym_fb_output_decls, 3160), (sym_no_retain_var_decls, 3160),
     (sym_fb_body, 10105), (sym_method_decl, 410), (sym_prog_access_decls, 3043), (sym_SFC, 7970),
     (sym_SFC_network, 7612), (sym_initial_step, 7439), (sym_config_init, 3047),
     (sym_using_directive, 2991), (sym_variable_access, 7530), (sym_func_call, 2961),
     (sym_stmt_list, 7970), (sym__stmt, 2024), (sym_assign, 3150), (sym_if_stmt, 3150),
     (sym_case_stmt, 3150), (sym_for_stmt, 3150), (sym_while_stmt, 3150), (sym_repeat_stmt, 3150),
     (sym_raise_stmt, 3150), (sym_try_stmt, 3150), (sym_ERR_clause_outside_try, 3150),
     (sym_begin_path_expression, 2943), (sym_invocation, 2934), (sym_any_invocation, 2935),
     (sym_this_invocation, 2641), (sym_super_invocation, 2641), (sym_super_body_invocation, 2935),
     (sym_path_expression, 2627), (sym_field_expression, 2373), (sym_index_expression, 2373),
     (sym_ladder_diagram, 7970), (sym_fb_diagram, 7970),
     (aux_sym_ERR_fb_variables_after_method_repeat1, 409), (aux_sym_func_decl_repeat1, 7194),
     (aux_sym_func_decl_repeat2, 2991), (aux_sym_fb_decl_repeat3, 410), (aux_sym_SFC_repeat1, 7612),
     (aux_sym_stmt_list_repeat1, 2024), (aux_sym_ladder_diagram_repeat1, 8009),
     (aux_sym_fb_diagram_repeat1, 8013), (sym_identifier, 298),
     (aux_sym_ERR_unexpected_this_in_path_token1, 304),
     (aux_sym_ERR_unexpected_super_in_path_token1, 306), (sym_line_comment, 3),
     (anon_sym_LBRACE, 308), (aux_sym_test_pragma_token1, 9), (aux_sym_once_pragma_token1, 11),
     (aux_sym_must_call_pragma_token1, 13), (aux_sym_export_pragma_token1, 15),
     (anon_sym_SEMI, 310), (anon_sym_PERCENT, 312), (aux_sym_input_decls_token1, 314),
     (aux_sym_output_decls_token1, 316), (aux_sym_in_out_decls_token1, 318),
     (aux_sym_var_decls_token1, 320), (aux_sym_temp_var_decls_token1, 322),
     (aux_sym_external_var_decls_token1, 324), (aux_sym_global_var_decls_token1, 326),
     (aux_sym_fb_decl_token4, 782), (aux_sym_method_decl_token1, 330),
     (aux_sym_prog_access_decls_token1, 332), (aux_sym_initial_step_token1, 334),
     (aux_sym_config_init_token1, 336), (aux_sym_using_directive_token1, 338),
     (aux_sym__stmt_token1, 340), (aux_sym__stmt_token2, 340), (aux_sym__stmt_token3, 340),
     (aux_sym_if_stmt_token1, 342), (aux_sym_case_stmt_token1, 344), (aux_sym_for_stmt_token1, 346),
     (aux_sym_while_stmt_token1, 348), (aux_sym_repeat_stmt_token1, 350),
     (aux_sym_raise_stmt_token1, 352), (aux_sym_try_stmt_token1, 354),
     (aux_sym_try_stmt_token2, 356), (aux_sym_catch_clause_token1, 356),
     (aux_sym_finally_clause_token1, 356), (sym_ld_rung, 358), (sym_fbd_network, 360),
     (sym_c_style_comment, 3), (sym_pascal_style_comment, 3), (sym_pragma, 3)]"

lemma ts_parse_row_226_scan: "row_scan tokens_63_2 0 ts_parse_row_226 = Some (Suc (Suc (Suc (Suc 0))))"
  unfolding ts_parse_row_226_def by simp

text \<open>Lines 80626 to 80741.\<close>

definition ts_parse_row_227 :: parse_row where
  "ts_parse_row_227 =
    [(sym_ERR_assign_func_call, 7530), (sym_ERR_unexpected_this_in_path, 2372),
     (sym_ERR_unexpected_super_in_path, 2372), (sym_ERR_fb_variables_after_method, 1473),
     (sym_ERR_var_access_not_allowed, 3160), (sym_ERR_var_config_not_allowed, 3160),
     (sym_ERR_var_global_not_allowed, 3160), (sym_ERR_method_decl_in_body, 3150),
     (sym_extern_pragma, 7490), (sym_wasm_pragma, 3150), (sym_warn_pragma, 7490),
     (sym_allow_pragma, 3140), (sym_test_pragma, 7490), (sym_once_pragma, 7490),
     (sym_must_call_pragma, 7490), (sym_export_pragma, 7490), (sym_pou_pragma, 7194),
     (sym_direct_variable, 7675), (sym_deref_expression, 2373), (sym_variable, 7599),
     (sym_var_access, 2373), (sym_in_out_decls, 3160), (sym_var_decls, 3160),
     (sym_retain_var_decls, 3160), (sym_temp_var_decls, 3160), (sym_external_var_decls, 3160),
     (sym_global_var_decls, 2947), (sym_loc_partly_var_decl, 3160), (sym__fb_variables, 673),
     (sym_fb_input_decls, 3160), (sym_fb_output_decls, 3160), (sym_no_retain_var_decls, 3160),
     (sym_fb_body, 8647), (sym_method_decl, 674), (sym_prog_access_decls, 3043), (sym_SFC, 7970),
     (sym_SFC_network, 7612), (sym_initial_step, 7439), (sym_config_init, 3047),
     (sym_using_directive, 2991), (sym_variable_access, 7530), (sym_func_call, 2961),
     (sym_stmt_list, 7970), (sym__stmt, 2024), (sym_assign, 3150), (sym_if_stmt, 3150),
     (sym_case_stmt, 3150), (sym_for_stmt, 3150), (sym_while_stmt, 3150), (sym_repeat_stmt, 3150),
     (sym_raise_stmt, 3150), (sym_try_stmt, 3150), (sym_ERR_clause_outside_try, 3150),
     (sym_begin_path_expression, 2943), (sym_invocation, 2934), (sym_any_invocation, 2935),
     (sym_this_invocation, 2641), (sym_super_invocation, 2641), (sym_super_body_invocation, 2935),
     (sym_path_expression, 2627), (sym_field_expression, 2373), (sym_index_expression, 2373),
     (sym_ladder_diagram, 7970), (sym_fb_diagram, 7970),
     (aux_sym_ERR_fb_variables_after_method_repeat1, 673), (aux_sym_func_decl_repeat1, 7194),
     (aux_sym_func_decl_repeat2, 2991), (aux_sym_fb_decl_repeat3, 674), (aux_sym_SFC_repeat1, 7612),
     (aux_sym_stmt_list_repeat1, 2024), (aux_sym_ladder_diagram_repeat1, 8009),
     (aux_sym_fb_diagram_repeat1, 8013), (sym_identifier, 298),
     (aux_sym_ERR_unexpected_this_in_path_token1, 304),
     (aux_sym_ERR_unexpected_super_in_path_token1, 306), (sym_line_comment, 3),
     (anon_sym_LBRACE, 308), (aux_sym_test_pragma_token1, 9), (aux_sym_once_pragma_token1, 11),
     (aux_sym_must_call_pragma_token1, 13), (aux_sym_export_pragma_token1, 15),
     (anon_sym_SEMI, 310), (anon_sym_PERCENT, 312), (aux_sym_input_decls_token1, 314),
     (aux_sym_output_decls_token1, 316), (aux_sym_in_out_decls_token1, 318),
     (aux_sym_var_decls_token1, 320), (aux_sym_temp_var_decls_token1, 322),
     (aux_sym_external_var_decls_token1, 324), (aux_sym_global_var_decls_token1, 326),
     (aux_sym_fb_decl_token4, 784), (aux_sym_method_decl_token1, 330),
     (aux_sym_prog_access_decls_token1, 332), (aux_sym_initial_step_token1, 334),
     (aux_sym_config_init_token1, 336), (aux_sym_using_directive_token1, 338),
     (aux_sym__stmt_token1, 340), (aux_sym__stmt_token2, 340), (aux_sym__stmt_token3, 340),
     (aux_sym_if_stmt_token1, 342), (aux_sym_case_stmt_token1, 344), (aux_sym_for_stmt_token1, 346),
     (aux_sym_while_stmt_token1, 348), (aux_sym_repeat_stmt_token1, 350),
     (aux_sym_raise_stmt_token1, 352), (aux_sym_try_stmt_token1, 354),
     (aux_sym_try_stmt_token2, 356), (aux_sym_catch_clause_token1, 356),
     (aux_sym_finally_clause_token1, 356), (sym_ld_rung, 358), (sym_fbd_network, 360),
     (sym_c_style_comment, 3), (sym_pascal_style_comment, 3), (sym_pragma, 3)]"

lemma ts_parse_row_227_scan: "row_scan tokens_63_2 0 ts_parse_row_227 = Some (Suc (Suc (Suc (Suc 0))))"
  unfolding ts_parse_row_227_def by simp

text \<open>Lines 80742 to 80857.\<close>

definition ts_parse_row_228 :: parse_row where
  "ts_parse_row_228 =
    [(sym_ERR_assign_func_call, 7530), (sym_ERR_unexpected_this_in_path, 2372),
     (sym_ERR_unexpected_super_in_path, 2372), (sym_ERR_fb_variables_after_method, 1405),
     (sym_ERR_var_access_not_allowed, 3160), (sym_ERR_var_config_not_allowed, 3160),
     (sym_ERR_var_global_not_allowed, 3160), (sym_ERR_method_decl_in_body, 3150),
     (sym_extern_pragma, 7490), (sym_wasm_pragma, 3150), (sym_warn_pragma, 7490),
     (sym_allow_pragma, 3140), (sym_test_pragma, 7490), (sym_once_pragma, 7490),
     (sym_must_call_pragma, 7490), (sym_export_pragma, 7490), (sym_pou_pragma, 7194),
     (sym_direct_variable, 7675), (sym_deref_expression, 2373), (sym_variable, 7599),
     (sym_var_access, 2373), (sym_in_out_decls, 3160), (sym_var_decls, 3160),
     (sym_retain_var_decls, 3160), (sym_temp_var_decls, 3160), (sym_external_var_decls, 3160),
     (sym_global_var_decls, 2947), (sym_loc_partly_var_decl, 3160), (sym__fb_variables, 872),
     (sym_fb_input_decls, 3160), (sym_fb_output_decls, 3160), (sym_no_retain_var_decls, 3160),
     (sym_fb_body, 10029), (sym_method_decl, 873), (sym_prog_access_decls, 3043), (sym_SFC, 7970),
     (sym_SFC_network, 7612), (sym_initial_step, 7439), (sym_config_init, 3047),
     (sym_using_directive, 2991), (sym_variable_access, 7530), (sym_func_call, 2961),
     (sym_stmt_list, 7970), (sym__stmt, 2024), (sym_assign, 3150), (sym_if_stmt, 3150),
     (sym_case_stmt, 3150), (sym_for_stmt, 3150), (sym_while_stmt, 3150), (sym_repeat_stmt, 3150),
     (sym_raise_stmt, 3150), (sym_try_stmt, 3150), (sym_ERR_clause_outside_try, 3150),
     (sym_begin_path_expression, 2943), (sym_invocation, 2934), (sym_any_invocation, 2935),
     (sym_this_invocation, 2641), (sym_super_invocation, 2641), (sym_super_body_invocation, 2935),
     (sym_path_expression, 2627), (sym_field_expression, 2373), (sym_index_expression, 2373),
     (sym_ladder_diagram, 7970), (sym_fb_diagram, 7970),
     (aux_sym_ERR_fb_variables_after_method_repeat1, 872), (aux_sym_func_decl_repeat1, 7194),
     (aux_sym_func_decl_repeat2, 2991), (aux_sym_fb_decl_repeat3, 873), (aux_sym_SFC_repeat1, 7612),
     (aux_sym_stmt_list_repeat1, 2024), (aux_sym_ladder_diagram_repeat1, 8009),
     (aux_sym_fb_diagram_repeat1, 8013), (sym_identifier, 298),
     (aux_sym_ERR_unexpected_this_in_path_token1, 304),
     (aux_sym_ERR_unexpected_super_in_path_token1, 306), (sym_line_comment, 3),
     (anon_sym_LBRACE, 308), (aux_sym_test_pragma_token1, 9), (aux_sym_once_pragma_token1, 11),
     (aux_sym_must_call_pragma_token1, 13), (aux_sym_export_pragma_token1, 15),
     (anon_sym_SEMI, 310), (anon_sym_PERCENT, 312), (aux_sym_input_decls_token1, 314),
     (aux_sym_output_decls_token1, 316), (aux_sym_in_out_decls_token1, 318),
     (aux_sym_var_decls_token1, 320), (aux_sym_temp_var_decls_token1, 322),
     (aux_sym_external_var_decls_token1, 324), (aux_sym_global_var_decls_token1, 326),
     (aux_sym_fb_decl_token4, 786), (aux_sym_method_decl_token1, 330),
     (aux_sym_prog_access_decls_token1, 332), (aux_sym_initial_step_token1, 334),
     (aux_sym_config_init_token1, 336), (aux_sym_using_directive_token1, 338),
     (aux_sym__stmt_token1, 340), (aux_sym__stmt_token2, 340), (aux_sym__stmt_token3, 340),
     (aux_sym_if_stmt_token1, 342), (aux_sym_case_stmt_token1, 344), (aux_sym_for_stmt_token1, 346),
     (aux_sym_while_stmt_token1, 348), (aux_sym_repeat_stmt_token1, 350),
     (aux_sym_raise_stmt_token1, 352), (aux_sym_try_stmt_token1, 354),
     (aux_sym_try_stmt_token2, 356), (aux_sym_catch_clause_token1, 356),
     (aux_sym_finally_clause_token1, 356), (sym_ld_rung, 358), (sym_fbd_network, 360),
     (sym_c_style_comment, 3), (sym_pascal_style_comment, 3), (sym_pragma, 3)]"

lemma ts_parse_row_228_scan: "row_scan tokens_63_2 0 ts_parse_row_228 = Some (Suc (Suc (Suc (Suc 0))))"
  unfolding ts_parse_row_228_def by simp

text \<open>Lines 80858 to 80973.\<close>

definition ts_parse_row_229 :: parse_row where
  "ts_parse_row_229 =
    [(sym_ERR_assign_func_call, 7530), (sym_ERR_unexpected_this_in_path, 2372),
     (sym_ERR_unexpected_super_in_path, 2372), (sym_ERR_fb_variables_after_method, 1356),
     (sym_ERR_var_access_not_allowed, 3160), (sym_ERR_var_config_not_allowed, 3160),
     (sym_ERR_var_global_not_allowed, 3160), (sym_ERR_method_decl_in_body, 3150),
     (sym_extern_pragma, 7490), (sym_wasm_pragma, 3150), (sym_warn_pragma, 7490),
     (sym_allow_pragma, 3140), (sym_test_pragma, 7490), (sym_once_pragma, 7490),
     (sym_must_call_pragma, 7490), (sym_export_pragma, 7490), (sym_pou_pragma, 7194),
     (sym_direct_variable, 7675), (sym_deref_expression, 2373), (sym_variable, 7599),
     (sym_var_access, 2373), (sym_in_out_decls, 3160), (sym_var_decls, 3160),
     (sym_retain_var_decls, 3160), (sym_temp_var_decls, 3160), (sym_external_var_decls, 3160),
     (sym_global_var_decls, 2947), (sym_loc_partly_var_decl, 3160), (sym__fb_variables, 601),
     (sym_fb_input_decls, 3160), (sym_fb_output_decls, 3160), (sym_no_retain_var_decls, 3160),
     (sym_fb_body, 9606), (sym_method_decl, 602), (sym_prog_access_decls, 3043), (sym_SFC, 7970),
     (sym_SFC_network, 7612), (sym_initial_step, 7439), (sym_config_init, 3047),
     (sym_using_directive, 2991), (sym_variable_access, 7530), (sym_func_call, 2961),
     (sym_stmt_list, 7970), (sym__stmt, 2024), (sym_assign, 3150), (sym_if_stmt, 3150),
     (sym_case_stmt, 3150), (sym_for_stmt, 3150), (sym_while_stmt, 3150), (sym_repeat_stmt, 3150),
     (sym_raise_stmt, 3150), (sym_try_stmt, 3150), (sym_ERR_clause_outside_try, 3150),
     (sym_begin_path_expression, 2943), (sym_invocation, 2934), (sym_any_invocation, 2935),
     (sym_this_invocation, 2641), (sym_super_invocation, 2641), (sym_super_body_invocation, 2935),
     (sym_path_expression, 2627), (sym_field_expression, 2373), (sym_index_expression, 2373),
     (sym_ladder_diagram, 7970), (sym_fb_diagram, 7970),
     (aux_sym_ERR_fb_variables_after_method_repeat1, 601), (aux_sym_func_decl_repeat1, 7194),
     (aux_sym_func_decl_repeat2, 2991), (aux_sym_fb_decl_repeat3, 602), (aux_sym_SFC_repeat1, 7612),
     (aux_sym_stmt_list_repeat1, 2024), (aux_sym_ladder_diagram_repeat1, 8009),
     (aux_sym_fb_diagram_repeat1, 8013), (sym_identifier, 298),
     (aux_sym_ERR_unexpected_this_in_path_token1, 304),
     (aux_sym_ERR_unexpected_super_in_path_token1, 306), (sym_line_comment, 3),
     (anon_sym_LBRACE, 308), (aux_sym_test_pragma_token1, 9), (aux_sym_once_pragma_token1, 11),
     (aux_sym_must_call_pragma_token1, 13), (aux_sym_export_pragma_token1, 15),
     (anon_sym_SEMI, 310), (anon_sym_PERCENT, 312), (aux_sym_input_decls_token1, 314),
     (aux_sym_output_decls_token1, 316), (aux_sym_in_out_decls_token1, 318),
     (aux_sym_var_decls_token1, 320), (aux_sym_temp_var_decls_token1, 322),
     (aux_sym_external_var_decls_token1, 324), (aux_sym_global_var_decls_token1, 326),
     (aux_sym_fb_decl_token4, 788), (aux_sym_method_decl_token1, 330),
     (aux_sym_prog_access_decls_token1, 332), (aux_sym_initial_step_token1, 334),
     (aux_sym_config_init_token1, 336), (aux_sym_using_directive_token1, 338),
     (aux_sym__stmt_token1, 340), (aux_sym__stmt_token2, 340), (aux_sym__stmt_token3, 340),
     (aux_sym_if_stmt_token1, 342), (aux_sym_case_stmt_token1, 344), (aux_sym_for_stmt_token1, 346),
     (aux_sym_while_stmt_token1, 348), (aux_sym_repeat_stmt_token1, 350),
     (aux_sym_raise_stmt_token1, 352), (aux_sym_try_stmt_token1, 354),
     (aux_sym_try_stmt_token2, 356), (aux_sym_catch_clause_token1, 356),
     (aux_sym_finally_clause_token1, 356), (sym_ld_rung, 358), (sym_fbd_network, 360),
     (sym_c_style_comment, 3), (sym_pascal_style_comment, 3), (sym_pragma, 3)]"

lemma ts_parse_row_229_scan: "row_scan tokens_63_2 0 ts_parse_row_229 = Some (Suc (Suc (Suc (Suc 0))))"
  unfolding ts_parse_row_229_def by simp

text \<open>Lines 80974 to 81089.\<close>

definition ts_parse_row_230 :: parse_row where
  "ts_parse_row_230 =
    [(sym_ERR_assign_func_call, 7530), (sym_ERR_unexpected_this_in_path, 2372),
     (sym_ERR_unexpected_super_in_path, 2372), (sym_ERR_fb_variables_after_method, 1491),
     (sym_ERR_var_access_not_allowed, 3160), (sym_ERR_var_config_not_allowed, 3160),
     (sym_ERR_var_global_not_allowed, 3160), (sym_ERR_method_decl_in_body, 3150),
     (sym_extern_pragma, 7490), (sym_wasm_pragma, 3150), (sym_warn_pragma, 7490),
     (sym_allow_pragma, 3140), (sym_test_pragma, 7490), (sym_once_pragma, 7490),
     (sym_must_call_pragma, 7490), (sym_export_pragma, 7490), (sym_pou_pragma, 7194),
     (sym_direct_variable, 7675), (sym_deref_expression, 2373), (sym_variable, 7599),
     (sym_var_access, 2373), (sym_in_out_decls, 3160), (sym_var_decls, 3160),
     (sym_retain_var_decls, 3160), (sym_temp_var_decls, 3160), (sym_external_var_decls, 3160),
     (sym_global_var_decls, 2947), (sym_loc_partly_var_decl, 3160), (sym__fb_variables, 684),
     (sym_fb_input_decls, 3160), (sym_fb_output_decls, 3160), (sym_no_retain_var_decls, 3160),
     (sym_fb_body, 8729), (sym_method_decl, 685), (sym_prog_access_decls, 3043), (sym_SFC, 7970),
     (sym_SFC_network, 7612), (sym_initial_step, 7439), (sym_config_init, 3047),
     (sym_using_directive, 2991), (sym_variable_access, 7530), (sym_func_call, 2961),
     (sym_stmt_list, 7970), (sym__stmt, 2024), (sym_assign, 3150), (sym_if_stmt, 3150),
     (sym_case_stmt, 3150), (sym_for_stmt, 3150), (sym_while_stmt, 3150), (sym_repeat_stmt, 3150),
     (sym_raise_stmt, 3150), (sym_try_stmt, 3150), (sym_ERR_clause_outside_try, 3150),
     (sym_begin_path_expression, 2943), (sym_invocation, 2934), (sym_any_invocation, 2935),
     (sym_this_invocation, 2641), (sym_super_invocation, 2641), (sym_super_body_invocation, 2935),
     (sym_path_expression, 2627), (sym_field_expression, 2373), (sym_index_expression, 2373),
     (sym_ladder_diagram, 7970), (sym_fb_diagram, 7970),
     (aux_sym_ERR_fb_variables_after_method_repeat1, 684), (aux_sym_func_decl_repeat1, 7194),
     (aux_sym_func_decl_repeat2, 2991), (aux_sym_fb_decl_repeat3, 685), (aux_sym_SFC_repeat1, 7612),
     (aux_sym_stmt_list_repeat1, 2024), (aux_sym_ladder_diagram_repeat1, 8009),
     (aux_sym_fb_diagram_repeat1, 8013), (sym_identifier, 298),
     (aux_sym_ERR_unexpected_this_in_path_token1, 304),
     (aux_sym_ERR_unexpected_super_in_path_token1, 306), (sym_line_comment, 3),
     (anon_sym_LBRACE, 308), (aux_sym_test_pragma_token1, 9), (aux_sym_once_pragma_token1, 11),
     (aux_sym_must_call_pragma_token1, 13), (aux_sym_export_pragma_token1, 15),
     (anon_sym_SEMI, 310), (anon_sym_PERCENT, 312), (aux_sym_input_decls_token1, 314),
     (aux_sym_output_decls_token1, 316), (aux_sym_in_out_decls_token1, 318),
     (aux_sym_var_decls_token1, 320), (aux_sym_temp_var_decls_token1, 322),
     (aux_sym_external_var_decls_token1, 324), (aux_sym_global_var_decls_token1, 326),
     (aux_sym_fb_decl_token4, 790), (aux_sym_method_decl_token1, 330),
     (aux_sym_prog_access_decls_token1, 332), (aux_sym_initial_step_token1, 334),
     (aux_sym_config_init_token1, 336), (aux_sym_using_directive_token1, 338),
     (aux_sym__stmt_token1, 340), (aux_sym__stmt_token2, 340), (aux_sym__stmt_token3, 340),
     (aux_sym_if_stmt_token1, 342), (aux_sym_case_stmt_token1, 344), (aux_sym_for_stmt_token1, 346),
     (aux_sym_while_stmt_token1, 348), (aux_sym_repeat_stmt_token1, 350),
     (aux_sym_raise_stmt_token1, 352), (aux_sym_try_stmt_token1, 354),
     (aux_sym_try_stmt_token2, 356), (aux_sym_catch_clause_token1, 356),
     (aux_sym_finally_clause_token1, 356), (sym_ld_rung, 358), (sym_fbd_network, 360),
     (sym_c_style_comment, 3), (sym_pascal_style_comment, 3), (sym_pragma, 3)]"

lemma ts_parse_row_230_scan: "row_scan tokens_63_2 0 ts_parse_row_230 = Some (Suc (Suc (Suc (Suc 0))))"
  unfolding ts_parse_row_230_def by simp

text \<open>Lines 81090 to 81205.\<close>

definition ts_parse_row_231 :: parse_row where
  "ts_parse_row_231 =
    [(sym_ERR_assign_func_call, 7530), (sym_ERR_unexpected_this_in_path, 2372),
     (sym_ERR_unexpected_super_in_path, 2372), (sym_ERR_fb_variables_after_method, 1499),
     (sym_ERR_var_access_not_allowed, 3160), (sym_ERR_var_config_not_allowed, 3160),
     (sym_ERR_var_global_not_allowed, 3160), (sym_ERR_method_decl_in_body, 3150),
     (sym_extern_pragma, 7490), (sym_wasm_pragma, 3150), (sym_warn_pragma, 7490),
     (sym_allow_pragma, 3140), (sym_test_pragma, 7490), (sym_once_pragma, 7490),
     (sym_must_call_pragma, 7490), (sym_export_pragma, 7490), (sym_pou_pragma, 7194),
     (sym_direct_variable, 7675), (sym_deref_expression, 2373), (sym_variable, 7599),
     (sym_var_access, 2373), (sym_in_out_decls, 3160), (sym_var_decls, 3160),
     (sym_retain_var_decls, 3160), (sym_temp_var_decls, 3160), (sym_external_var_decls, 3160),
     (sym_global_var_decls, 2947), (sym_loc_partly_var_decl, 3160), (sym__fb_variables, 688),
     (sym_fb_input_decls, 3160), (sym_fb_output_decls, 3160), (sym_no_retain_var_decls, 3160),
     (sym_fb_body, 8776), (sym_method_decl, 689), (sym_prog_access_decls, 3043), (sym_SFC, 7970),
     (sym_SFC_network, 7612), (sym_initial_step, 7439), (sym_config_init, 3047),
     (sym_using_directive, 2991), (sym_variable_access, 7530), (sym_func_call, 2961),
     (sym_stmt_list, 7970), (sym__stmt, 2024), (sym_assign, 3150), (sym_if_stmt, 3150),
     (sym_case_stmt, 3150), (sym_for_stmt, 3150), (sym_while_stmt, 3150), (sym_repeat_stmt, 3150),
     (sym_raise_stmt, 3150), (sym_try_stmt, 3150), (sym_ERR_clause_outside_try, 3150),
     (sym_begin_path_expression, 2943), (sym_invocation, 2934), (sym_any_invocation, 2935),
     (sym_this_invocation, 2641), (sym_super_invocation, 2641), (sym_super_body_invocation, 2935),
     (sym_path_expression, 2627), (sym_field_expression, 2373), (sym_index_expression, 2373),
     (sym_ladder_diagram, 7970), (sym_fb_diagram, 7970),
     (aux_sym_ERR_fb_variables_after_method_repeat1, 688), (aux_sym_func_decl_repeat1, 7194),
     (aux_sym_func_decl_repeat2, 2991), (aux_sym_fb_decl_repeat3, 689), (aux_sym_SFC_repeat1, 7612),
     (aux_sym_stmt_list_repeat1, 2024), (aux_sym_ladder_diagram_repeat1, 8009),
     (aux_sym_fb_diagram_repeat1, 8013), (sym_identifier, 298),
     (aux_sym_ERR_unexpected_this_in_path_token1, 304),
     (aux_sym_ERR_unexpected_super_in_path_token1, 306), (sym_line_comment, 3),
     (anon_sym_LBRACE, 308), (aux_sym_test_pragma_token1, 9), (aux_sym_once_pragma_token1, 11),
     (aux_sym_must_call_pragma_token1, 13), (aux_sym_export_pragma_token1, 15),
     (anon_sym_SEMI, 310), (anon_sym_PERCENT, 312), (aux_sym_input_decls_token1, 314),
     (aux_sym_output_decls_token1, 316), (aux_sym_in_out_decls_token1, 318),
     (aux_sym_var_decls_token1, 320), (aux_sym_temp_var_decls_token1, 322),
     (aux_sym_external_var_decls_token1, 324), (aux_sym_global_var_decls_token1, 326),
     (aux_sym_fb_decl_token4, 792), (aux_sym_method_decl_token1, 330),
     (aux_sym_prog_access_decls_token1, 332), (aux_sym_initial_step_token1, 334),
     (aux_sym_config_init_token1, 336), (aux_sym_using_directive_token1, 338),
     (aux_sym__stmt_token1, 340), (aux_sym__stmt_token2, 340), (aux_sym__stmt_token3, 340),
     (aux_sym_if_stmt_token1, 342), (aux_sym_case_stmt_token1, 344), (aux_sym_for_stmt_token1, 346),
     (aux_sym_while_stmt_token1, 348), (aux_sym_repeat_stmt_token1, 350),
     (aux_sym_raise_stmt_token1, 352), (aux_sym_try_stmt_token1, 354),
     (aux_sym_try_stmt_token2, 356), (aux_sym_catch_clause_token1, 356),
     (aux_sym_finally_clause_token1, 356), (sym_ld_rung, 358), (sym_fbd_network, 360),
     (sym_c_style_comment, 3), (sym_pascal_style_comment, 3), (sym_pragma, 3)]"

lemma ts_parse_row_231_scan: "row_scan tokens_63_2 0 ts_parse_row_231 = Some (Suc (Suc (Suc (Suc 0))))"
  unfolding ts_parse_row_231_def by simp

text \<open>Lines 81206 to 81321.\<close>

definition ts_parse_row_232 :: parse_row where
  "ts_parse_row_232 =
    [(sym_ERR_assign_func_call, 7530), (sym_ERR_unexpected_this_in_path, 2372),
     (sym_ERR_unexpected_super_in_path, 2372), (sym_ERR_fb_variables_after_method, 1959),
     (sym_ERR_var_access_not_allowed, 3160), (sym_ERR_var_config_not_allowed, 3160),
     (sym_ERR_var_global_not_allowed, 3160), (sym_ERR_method_decl_in_body, 3150),
     (sym_extern_pragma, 7490), (sym_wasm_pragma, 3150), (sym_warn_pragma, 7490),
     (sym_allow_pragma, 3140), (sym_test_pragma, 7490), (sym_once_pragma, 7490),
     (sym_must_call_pragma, 7490), (sym_export_pragma, 7490), (sym_pou_pragma, 7194),
     (sym_direct_variable, 7675), (sym_deref_expression, 2373), (sym_variable, 7599),
     (sym_var_access, 2373), (sym_in_out_decls, 3160), (sym_var_decls, 3160),
     (sym_retain_var_decls, 3160), (sym_temp_var_decls, 3160), (sym_external_var_decls, 3160),
     (sym_global_var_decls, 2947), (sym_loc_partly_var_decl, 3160), (sym__fb_variables, 480),
     (sym_fb_input_decls, 3160), (sym_fb_output_decls, 3160), (sym_no_retain_var_decls, 3160),
     (sym_fb_body, 8241), (sym_method_decl, 481), (sym_prog_access_decls, 3043), (sym_SFC, 7970),
     (sym_SFC_network, 7612), (sym_initial_step, 7439), (sym_config_init, 3047),
     (sym_using_directive, 2991), (sym_variable_access, 7530), (sym_func_call, 2961),
     (sym_stmt_list, 7970), (sym__stmt, 2024), (sym_assign, 3150), (sym_if_stmt, 3150),
     (sym_case_stmt, 3150), (sym_for_stmt, 3150), (sym_while_stmt, 3150), (sym_repeat_stmt, 3150),
     (sym_raise_stmt, 3150), (sym_try_stmt, 3150), (sym_ERR_clause_outside_try, 3150),
     (sym_begin_path_expression, 2943), (sym_invocation, 2934), (sym_any_invocation, 2935),
     (sym_this_invocation, 2641), (sym_super_invocation, 2641), (sym_super_body_invocation, 2935),
     (sym_path_expression, 2627), (sym_field_expression, 2373), (sym_index_expression, 2373),
     (sym_ladder_diagram, 7970), (sym_fb_diagram, 7970),
     (aux_sym_ERR_fb_variables_after_method_repeat1, 480), (aux_sym_func_decl_repeat1, 7194),
     (aux_sym_func_decl_repeat2, 2991), (aux_sym_fb_decl_repeat3, 481), (aux_sym_SFC_repeat1, 7612),
     (aux_sym_stmt_list_repeat1, 2024), (aux_sym_ladder_diagram_repeat1, 8009),
     (aux_sym_fb_diagram_repeat1, 8013), (sym_identifier, 298),
     (aux_sym_ERR_unexpected_this_in_path_token1, 304),
     (aux_sym_ERR_unexpected_super_in_path_token1, 306), (sym_line_comment, 3),
     (anon_sym_LBRACE, 308), (aux_sym_test_pragma_token1, 9), (aux_sym_once_pragma_token1, 11),
     (aux_sym_must_call_pragma_token1, 13), (aux_sym_export_pragma_token1, 15),
     (anon_sym_SEMI, 310), (anon_sym_PERCENT, 312), (aux_sym_input_decls_token1, 314),
     (aux_sym_output_decls_token1, 316), (aux_sym_in_out_decls_token1, 318),
     (aux_sym_var_decls_token1, 320), (aux_sym_temp_var_decls_token1, 322),
     (aux_sym_external_var_decls_token1, 324), (aux_sym_global_var_decls_token1, 326),
     (aux_sym_fb_decl_token4, 794), (aux_sym_method_decl_token1, 330),
     (aux_sym_prog_access_decls_token1, 332), (aux_sym_initial_step_token1, 334),
     (aux_sym_config_init_token1, 336), (aux_sym_using_directive_token1, 338),
     (aux_sym__stmt_token1, 340), (aux_sym__stmt_token2, 340), (aux_sym__stmt_token3, 340),
     (aux_sym_if_stmt_token1, 342), (aux_sym_case_stmt_token1, 344), (aux_sym_for_stmt_token1, 346),
     (aux_sym_while_stmt_token1, 348), (aux_sym_repeat_stmt_token1, 350),
     (aux_sym_raise_stmt_token1, 352), (aux_sym_try_stmt_token1, 354),
     (aux_sym_try_stmt_token2, 356), (aux_sym_catch_clause_token1, 356),
     (aux_sym_finally_clause_token1, 356), (sym_ld_rung, 358), (sym_fbd_network, 360),
     (sym_c_style_comment, 3), (sym_pascal_style_comment, 3), (sym_pragma, 3)]"

lemma ts_parse_row_232_scan: "row_scan tokens_63_2 0 ts_parse_row_232 = Some (Suc (Suc (Suc (Suc 0))))"
  unfolding ts_parse_row_232_def by simp

text \<open>Lines 81322 to 81437.\<close>

definition ts_parse_row_233 :: parse_row where
  "ts_parse_row_233 =
    [(sym_ERR_assign_func_call, 7530), (sym_ERR_unexpected_this_in_path, 2372),
     (sym_ERR_unexpected_super_in_path, 2372), (sym_ERR_fb_variables_after_method, 1507),
     (sym_ERR_var_access_not_allowed, 3160), (sym_ERR_var_config_not_allowed, 3160),
     (sym_ERR_var_global_not_allowed, 3160), (sym_ERR_method_decl_in_body, 3150),
     (sym_extern_pragma, 7490), (sym_wasm_pragma, 3150), (sym_warn_pragma, 7490),
     (sym_allow_pragma, 3140), (sym_test_pragma, 7490), (sym_once_pragma, 7490),
     (sym_must_call_pragma, 7490), (sym_export_pragma, 7490), (sym_pou_pragma, 7194),
     (sym_direct_variable, 7675), (sym_deref_expression, 2373), (sym_variable, 7599),
     (sym_var_access, 2373), (sym_in_out_decls, 3160), (sym_var_decls, 3160),
     (sym_retain_var_decls, 3160), (sym_temp_var_decls, 3160), (sym_external_var_decls, 3160),
     (sym_global_var_decls, 2947), (sym_loc_partly_var_decl, 3160), (sym__fb_variables, 697),
     (sym_fb_input_decls, 3160), (sym_fb_output_decls, 3160), (sym_no_retain_var_decls, 3160),
     (sym_fb_body, 8833), (sym_method_decl, 698), (sym_prog_access_decls, 3043), (sym_SFC, 7970),
     (sym_SFC_network, 7612), (sym_initial_step, 7439), (sym_config_init, 3047),
     (sym_using_directive, 2991), (sym_variable_access, 7530), (sym_func_call, 2961),
     (sym_stmt_list, 7970), (sym__stmt, 2024), (sym_assign, 3150), (sym_if_stmt, 3150),
     (sym_case_stmt, 3150), (sym_for_stmt, 3150), (sym_while_stmt, 3150), (sym_repeat_stmt, 3150),
     (sym_raise_stmt, 3150), (sym_try_stmt, 3150), (sym_ERR_clause_outside_try, 3150),
     (sym_begin_path_expression, 2943), (sym_invocation, 2934), (sym_any_invocation, 2935),
     (sym_this_invocation, 2641), (sym_super_invocation, 2641), (sym_super_body_invocation, 2935),
     (sym_path_expression, 2627), (sym_field_expression, 2373), (sym_index_expression, 2373),
     (sym_ladder_diagram, 7970), (sym_fb_diagram, 7970),
     (aux_sym_ERR_fb_variables_after_method_repeat1, 697), (aux_sym_func_decl_repeat1, 7194),
     (aux_sym_func_decl_repeat2, 2991), (aux_sym_fb_decl_repeat3, 698), (aux_sym_SFC_repeat1, 7612),
     (aux_sym_stmt_list_repeat1, 2024), (aux_sym_ladder_diagram_repeat1, 8009),
     (aux_sym_fb_diagram_repeat1, 8013), (sym_identifier, 298),
     (aux_sym_ERR_unexpected_this_in_path_token1, 304),
     (aux_sym_ERR_unexpected_super_in_path_token1, 306), (sym_line_comment, 3),
     (anon_sym_LBRACE, 308), (aux_sym_test_pragma_token1, 9), (aux_sym_once_pragma_token1, 11),
     (aux_sym_must_call_pragma_token1, 13), (aux_sym_export_pragma_token1, 15),
     (anon_sym_SEMI, 310), (anon_sym_PERCENT, 312), (aux_sym_input_decls_token1, 314),
     (aux_sym_output_decls_token1, 316), (aux_sym_in_out_decls_token1, 318),
     (aux_sym_var_decls_token1, 320), (aux_sym_temp_var_decls_token1, 322),
     (aux_sym_external_var_decls_token1, 324), (aux_sym_global_var_decls_token1, 326),
     (aux_sym_fb_decl_token4, 796), (aux_sym_method_decl_token1, 330),
     (aux_sym_prog_access_decls_token1, 332), (aux_sym_initial_step_token1, 334),
     (aux_sym_config_init_token1, 336), (aux_sym_using_directive_token1, 338),
     (aux_sym__stmt_token1, 340), (aux_sym__stmt_token2, 340), (aux_sym__stmt_token3, 340),
     (aux_sym_if_stmt_token1, 342), (aux_sym_case_stmt_token1, 344), (aux_sym_for_stmt_token1, 346),
     (aux_sym_while_stmt_token1, 348), (aux_sym_repeat_stmt_token1, 350),
     (aux_sym_raise_stmt_token1, 352), (aux_sym_try_stmt_token1, 354),
     (aux_sym_try_stmt_token2, 356), (aux_sym_catch_clause_token1, 356),
     (aux_sym_finally_clause_token1, 356), (sym_ld_rung, 358), (sym_fbd_network, 360),
     (sym_c_style_comment, 3), (sym_pascal_style_comment, 3), (sym_pragma, 3)]"

lemma ts_parse_row_233_scan: "row_scan tokens_63_2 0 ts_parse_row_233 = Some (Suc (Suc (Suc (Suc 0))))"
  unfolding ts_parse_row_233_def by simp

text \<open>Lines 81438 to 81553.\<close>

definition ts_parse_row_234 :: parse_row where
  "ts_parse_row_234 =
    [(sym_ERR_assign_func_call, 7530), (sym_ERR_unexpected_this_in_path, 2372),
     (sym_ERR_unexpected_super_in_path, 2372), (sym_ERR_fb_variables_after_method, 1699),
     (sym_ERR_var_access_not_allowed, 3160), (sym_ERR_var_config_not_allowed, 3160),
     (sym_ERR_var_global_not_allowed, 3160), (sym_ERR_method_decl_in_body, 3150),
     (sym_extern_pragma, 7490), (sym_wasm_pragma, 3150), (sym_warn_pragma, 7490),
     (sym_allow_pragma, 3140), (sym_test_pragma, 7490), (sym_once_pragma, 7490),
     (sym_must_call_pragma, 7490), (sym_export_pragma, 7490), (sym_pou_pragma, 7194),
     (sym_direct_variable, 7675), (sym_deref_expression, 2373), (sym_variable, 7599),
     (sym_var_access, 2373), (sym_in_out_decls, 3160), (sym_var_decls, 3160),
     (sym_retain_var_decls, 3160), (sym_temp_var_decls, 3160), (sym_external_var_decls, 3160),
     (sym_global_var_decls, 2947), (sym_loc_partly_var_decl, 3160), (sym__fb_variables, 368),
     (sym_fb_input_decls, 3160), (sym_fb_output_decls, 3160), (sym_no_retain_var_decls, 3160),
     (sym_fb_body, 9079), (sym_method_decl, 369), (sym_prog_access_decls, 3043), (sym_SFC, 7970),
     (sym_SFC_network, 7612), (sym_initial_step, 7439), (sym_config_init, 3047),
     (sym_using_directive, 2991), (sym_variable_access, 7530), (sym_func_call, 2961),
     (sym_stmt_list, 7970), (sym__stmt, 2024), (sym_assign, 3150), (sym_if_stmt, 3150),
     (sym_case_stmt, 3150), (sym_for_stmt, 3150), (sym_while_stmt, 3150), (sym_repeat_stmt, 3150),
     (sym_raise_stmt, 3150), (sym_try_stmt, 3150), (sym_ERR_clause_outside_try, 3150),
     (sym_begin_path_expression, 2943), (sym_invocation, 2934), (sym_any_invocation, 2935),
     (sym_this_invocation, 2641), (sym_super_invocation, 2641), (sym_super_body_invocation, 2935),
     (sym_path_expression, 2627), (sym_field_expression, 2373), (sym_index_expression, 2373),
     (sym_ladder_diagram, 7970), (sym_fb_diagram, 7970),
     (aux_sym_ERR_fb_variables_after_method_repeat1, 368), (aux_sym_func_decl_repeat1, 7194),
     (aux_sym_func_decl_repeat2, 2991), (aux_sym_fb_decl_repeat3, 369), (aux_sym_SFC_repeat1, 7612),
     (aux_sym_stmt_list_repeat1, 2024), (aux_sym_ladder_diagram_repeat1, 8009),
     (aux_sym_fb_diagram_repeat1, 8013), (sym_identifier, 298),
     (aux_sym_ERR_unexpected_this_in_path_token1, 304),
     (aux_sym_ERR_unexpected_super_in_path_token1, 306), (sym_line_comment, 3),
     (anon_sym_LBRACE, 308), (aux_sym_test_pragma_token1, 9), (aux_sym_once_pragma_token1, 11),
     (aux_sym_must_call_pragma_token1, 13), (aux_sym_export_pragma_token1, 15),
     (anon_sym_SEMI, 310), (anon_sym_PERCENT, 312), (aux_sym_input_decls_token1, 314),
     (aux_sym_output_decls_token1, 316), (aux_sym_in_out_decls_token1, 318),
     (aux_sym_var_decls_token1, 320), (aux_sym_temp_var_decls_token1, 322),
     (aux_sym_external_var_decls_token1, 324), (aux_sym_global_var_decls_token1, 326),
     (aux_sym_fb_decl_token4, 798), (aux_sym_method_decl_token1, 330),
     (aux_sym_prog_access_decls_token1, 332), (aux_sym_initial_step_token1, 334),
     (aux_sym_config_init_token1, 336), (aux_sym_using_directive_token1, 338),
     (aux_sym__stmt_token1, 340), (aux_sym__stmt_token2, 340), (aux_sym__stmt_token3, 340),
     (aux_sym_if_stmt_token1, 342), (aux_sym_case_stmt_token1, 344), (aux_sym_for_stmt_token1, 346),
     (aux_sym_while_stmt_token1, 348), (aux_sym_repeat_stmt_token1, 350),
     (aux_sym_raise_stmt_token1, 352), (aux_sym_try_stmt_token1, 354),
     (aux_sym_try_stmt_token2, 356), (aux_sym_catch_clause_token1, 356),
     (aux_sym_finally_clause_token1, 356), (sym_ld_rung, 358), (sym_fbd_network, 360),
     (sym_c_style_comment, 3), (sym_pascal_style_comment, 3), (sym_pragma, 3)]"

lemma ts_parse_row_234_scan: "row_scan tokens_63_2 0 ts_parse_row_234 = Some (Suc (Suc (Suc (Suc 0))))"
  unfolding ts_parse_row_234_def by simp

text \<open>Lines 81554 to 81669.\<close>

definition ts_parse_row_235 :: parse_row where
  "ts_parse_row_235 =
    [(sym_ERR_assign_func_call, 7530), (sym_ERR_unexpected_this_in_path, 2372),
     (sym_ERR_unexpected_super_in_path, 2372), (sym_ERR_fb_variables_after_method, 1511),
     (sym_ERR_var_access_not_allowed, 3160), (sym_ERR_var_config_not_allowed, 3160),
     (sym_ERR_var_global_not_allowed, 3160), (sym_ERR_method_decl_in_body, 3150),
     (sym_extern_pragma, 7490), (sym_wasm_pragma, 3150), (sym_warn_pragma, 7490),
     (sym_allow_pragma, 3140), (sym_test_pragma, 7490), (sym_once_pragma, 7490),
     (sym_must_call_pragma, 7490), (sym_export_pragma, 7490), (sym_pou_pragma, 7194),
     (sym_direct_variable, 7675), (sym_deref_expression, 2373), (sym_variable, 7599),
     (sym_var_access, 2373), (sym_in_out_decls, 3160), (sym_var_decls, 3160),
     (sym_retain_var_decls, 3160), (sym_temp_var_decls, 3160), (sym_external_var_decls, 3160),
     (sym_global_var_decls, 2947), (sym_loc_partly_var_decl, 3160), (sym__fb_variables, 703),
     (sym_fb_input_decls, 3160), (sym_fb_output_decls, 3160), (sym_no_retain_var_decls, 3160),
     (sym_fb_body, 8872), (sym_method_decl, 704), (sym_prog_access_decls, 3043), (sym_SFC, 7970),
     (sym_SFC_network, 7612), (sym_initial_step, 7439), (sym_config_init, 3047),
     (sym_using_directive, 2991), (sym_variable_access, 7530), (sym_func_call, 2961),
     (sym_stmt_list, 7970), (sym__stmt, 2024), (sym_assign, 3150), (sym_if_stmt, 3150),
     (sym_case_stmt, 3150), (sym_for_stmt, 3150), (sym_while_stmt, 3150), (sym_repeat_stmt, 3150),
     (sym_raise_stmt, 3150), (sym_try_stmt, 3150), (sym_ERR_clause_outside_try, 3150),
     (sym_begin_path_expression, 2943), (sym_invocation, 2934), (sym_any_invocation, 2935),
     (sym_this_invocation, 2641), (sym_super_invocation, 2641), (sym_super_body_invocation, 2935),
     (sym_path_expression, 2627), (sym_field_expression, 2373), (sym_index_expression, 2373),
     (sym_ladder_diagram, 7970), (sym_fb_diagram, 7970),
     (aux_sym_ERR_fb_variables_after_method_repeat1, 703), (aux_sym_func_decl_repeat1, 7194),
     (aux_sym_func_decl_repeat2, 2991), (aux_sym_fb_decl_repeat3, 704), (aux_sym_SFC_repeat1, 7612),
     (aux_sym_stmt_list_repeat1, 2024), (aux_sym_ladder_diagram_repeat1, 8009),
     (aux_sym_fb_diagram_repeat1, 8013), (sym_identifier, 298),
     (aux_sym_ERR_unexpected_this_in_path_token1, 304),
     (aux_sym_ERR_unexpected_super_in_path_token1, 306), (sym_line_comment, 3),
     (anon_sym_LBRACE, 308), (aux_sym_test_pragma_token1, 9), (aux_sym_once_pragma_token1, 11),
     (aux_sym_must_call_pragma_token1, 13), (aux_sym_export_pragma_token1, 15),
     (anon_sym_SEMI, 310), (anon_sym_PERCENT, 312), (aux_sym_input_decls_token1, 314),
     (aux_sym_output_decls_token1, 316), (aux_sym_in_out_decls_token1, 318),
     (aux_sym_var_decls_token1, 320), (aux_sym_temp_var_decls_token1, 322),
     (aux_sym_external_var_decls_token1, 324), (aux_sym_global_var_decls_token1, 326),
     (aux_sym_fb_decl_token4, 800), (aux_sym_method_decl_token1, 330),
     (aux_sym_prog_access_decls_token1, 332), (aux_sym_initial_step_token1, 334),
     (aux_sym_config_init_token1, 336), (aux_sym_using_directive_token1, 338),
     (aux_sym__stmt_token1, 340), (aux_sym__stmt_token2, 340), (aux_sym__stmt_token3, 340),
     (aux_sym_if_stmt_token1, 342), (aux_sym_case_stmt_token1, 344), (aux_sym_for_stmt_token1, 346),
     (aux_sym_while_stmt_token1, 348), (aux_sym_repeat_stmt_token1, 350),
     (aux_sym_raise_stmt_token1, 352), (aux_sym_try_stmt_token1, 354),
     (aux_sym_try_stmt_token2, 356), (aux_sym_catch_clause_token1, 356),
     (aux_sym_finally_clause_token1, 356), (sym_ld_rung, 358), (sym_fbd_network, 360),
     (sym_c_style_comment, 3), (sym_pascal_style_comment, 3), (sym_pragma, 3)]"

lemma ts_parse_row_235_scan: "row_scan tokens_63_2 0 ts_parse_row_235 = Some (Suc (Suc (Suc (Suc 0))))"
  unfolding ts_parse_row_235_def by simp

text \<open>Lines 81670 to 81785.\<close>

definition ts_parse_row_236 :: parse_row where
  "ts_parse_row_236 =
    [(sym_ERR_assign_func_call, 7530), (sym_ERR_unexpected_this_in_path, 2372),
     (sym_ERR_unexpected_super_in_path, 2372), (sym_ERR_fb_variables_after_method, 1885),
     (sym_ERR_var_access_not_allowed, 3160), (sym_ERR_var_config_not_allowed, 3160),
     (sym_ERR_var_global_not_allowed, 3160), (sym_ERR_method_decl_in_body, 3150),
     (sym_extern_pragma, 7490), (sym_wasm_pragma, 3150), (sym_warn_pragma, 7490),
     (sym_allow_pragma, 3140), (sym_test_pragma, 7490), (sym_once_pragma, 7490),
     (sym_must_call_pragma, 7490), (sym_export_pragma, 7490), (sym_pou_pragma, 7194),
     (sym_direct_variable, 7675), (sym_deref_expression, 2373), (sym_variable, 7599),
     (sym_var_access, 2373), (sym_in_out_decls, 3160), (sym_var_decls, 3160),
     (sym_retain_var_decls, 3160), (sym_temp_var_decls, 3160), (sym_external_var_decls, 3160),
     (sym_global_var_decls, 2947), (sym_loc_partly_var_decl, 3160), (sym__fb_variables, 416),
     (sym_fb_input_decls, 3160), (sym_fb_output_decls, 3160), (sym_no_retain_var_decls, 3160),
     (sym_fb_body, 8297), (sym_method_decl, 417), (sym_prog_access_decls, 3043), (sym_SFC, 7970),
     (sym_SFC_network, 7612), (sym_initial_step, 7439), (sym_config_init, 3047),
     (sym_using_directive, 2991), (sym_variable_access, 7530), (sym_func_call, 2961),
     (sym_stmt_list, 7970), (sym__stmt, 2024), (sym_assign, 3150), (sym_if_stmt, 3150),
     (sym_case_stmt, 3150), (sym_for_stmt, 3150), (sym_while_stmt, 3150), (sym_repeat_stmt, 3150),
     (sym_raise_stmt, 3150), (sym_try_stmt, 3150), (sym_ERR_clause_outside_try, 3150),
     (sym_begin_path_expression, 2943), (sym_invocation, 2934), (sym_any_invocation, 2935),
     (sym_this_invocation, 2641), (sym_super_invocation, 2641), (sym_super_body_invocation, 2935),
     (sym_path_expression, 2627), (sym_field_expression, 2373), (sym_index_expression, 2373),
     (sym_ladder_diagram, 7970), (sym_fb_diagram, 7970),
     (aux_sym_ERR_fb_variables_after_method_repeat1, 416), (aux_sym_func_decl_repeat1, 7194),
     (aux_sym_func_decl_repeat2, 2991), (aux_sym_fb_decl_repeat3, 417), (aux_sym_SFC_repeat1, 7612),
     (aux_sym_stmt_list_repeat1, 2024), (aux_sym_ladder_diagram_repeat1, 8009),
     (aux_sym_fb_diagram_repeat1, 8013), (sym_identifier, 298),
     (aux_sym_ERR_unexpected_this_in_path_token1, 304),
     (aux_sym_ERR_unexpected_super_in_path_token1, 306), (sym_line_comment, 3),
     (anon_sym_LBRACE, 308), (aux_sym_test_pragma_token1, 9), (aux_sym_once_pragma_token1, 11),
     (aux_sym_must_call_pragma_token1, 13), (aux_sym_export_pragma_token1, 15),
     (anon_sym_SEMI, 310), (anon_sym_PERCENT, 312), (aux_sym_input_decls_token1, 314),
     (aux_sym_output_decls_token1, 316), (aux_sym_in_out_decls_token1, 318),
     (aux_sym_var_decls_token1, 320), (aux_sym_temp_var_decls_token1, 322),
     (aux_sym_external_var_decls_token1, 324), (aux_sym_global_var_decls_token1, 326),
     (aux_sym_fb_decl_token4, 802), (aux_sym_method_decl_token1, 330),
     (aux_sym_prog_access_decls_token1, 332), (aux_sym_initial_step_token1, 334),
     (aux_sym_config_init_token1, 336), (aux_sym_using_directive_token1, 338),
     (aux_sym__stmt_token1, 340), (aux_sym__stmt_token2, 340), (aux_sym__stmt_token3, 340),
     (aux_sym_if_stmt_token1, 342), (aux_sym_case_stmt_token1, 344), (aux_sym_for_stmt_token1, 346),
     (aux_sym_while_stmt_token1, 348), (aux_sym_repeat_stmt_token1, 350),
     (aux_sym_raise_stmt_token1, 352), (aux_sym_try_stmt_token1, 354),
     (aux_sym_try_stmt_token2, 356), (aux_sym_catch_clause_token1, 356),
     (aux_sym_finally_clause_token1, 356), (sym_ld_rung, 358), (sym_fbd_network, 360),
     (sym_c_style_comment, 3), (sym_pascal_style_comment, 3), (sym_pragma, 3)]"

lemma ts_parse_row_236_scan: "row_scan tokens_63_2 0 ts_parse_row_236 = Some (Suc (Suc (Suc (Suc 0))))"
  unfolding ts_parse_row_236_def by simp

text \<open>Lines 81786 to 81901.\<close>

definition ts_parse_row_237 :: parse_row where
  "ts_parse_row_237 =
    [(sym_ERR_assign_func_call, 7530), (sym_ERR_unexpected_this_in_path, 2372),
     (sym_ERR_unexpected_super_in_path, 2372), (sym_ERR_fb_variables_after_method, 1525),
     (sym_ERR_var_access_not_allowed, 3160), (sym_ERR_var_config_not_allowed, 3160),
     (sym_ERR_var_global_not_allowed, 3160), (sym_ERR_method_decl_in_body, 3150),
     (sym_extern_pragma, 7490), (sym_wasm_pragma, 3150), (sym_warn_pragma, 7490),
     (sym_allow_pragma, 3140), (sym_test_pragma, 7490), (sym_once_pragma, 7490),
     (sym_must_call_pragma, 7490), (sym_export_pragma, 7490), (sym_pou_pragma, 7194),
     (sym_direct_variable, 7675), (sym_deref_expression, 2373), (sym_variable, 7599),
     (sym_var_access, 2373), (sym_in_out_decls, 3160), (sym_var_decls, 3160),
     (sym_retain_var_decls, 3160), (sym_temp_var_decls, 3160), (sym_external_var_decls, 3160),
     (sym_global_var_decls, 2947), (sym_loc_partly_var_decl, 3160), (sym__fb_variables, 711),
     (sym_fb_input_decls, 3160), (sym_fb_output_decls, 3160), (sym_no_retain_var_decls, 3160),
     (sym_fb_body, 8991), (sym_method_decl, 712), (sym_prog_access_decls, 3043), (sym_SFC, 7970),
     (sym_SFC_network, 7612), (sym_initial_step, 7439), (sym_config_init, 3047),
     (sym_using_directive, 2991), (sym_variable_access, 7530), (sym_func_call, 2961),
     (sym_stmt_list, 7970), (sym__stmt, 2024), (sym_assign, 3150), (sym_if_stmt, 3150),
     (sym_case_stmt, 3150), (sym_for_stmt, 3150), (sym_while_stmt, 3150), (sym_repeat_stmt, 3150),
     (sym_raise_stmt, 3150), (sym_try_stmt, 3150), (sym_ERR_clause_outside_try, 3150),
     (sym_begin_path_expression, 2943), (sym_invocation, 2934), (sym_any_invocation, 2935),
     (sym_this_invocation, 2641), (sym_super_invocation, 2641), (sym_super_body_invocation, 2935),
     (sym_path_expression, 2627), (sym_field_expression, 2373), (sym_index_expression, 2373),
     (sym_ladder_diagram, 7970), (sym_fb_diagram, 7970),
     (aux_sym_ERR_fb_variables_after_method_repeat1, 711), (aux_sym_func_decl_repeat1, 7194),
     (aux_sym_func_decl_repeat2, 2991), (aux_sym_fb_decl_repeat3, 712), (aux_sym_SFC_repeat1, 7612),
     (aux_sym_stmt_list_repeat1, 2024), (aux_sym_ladder_diagram_repeat1, 8009),
     (aux_sym_fb_diagram_repeat1, 8013), (sym_identifier, 298),
     (aux_sym_ERR_unexpected_this_in_path_token1, 304),
     (aux_sym_ERR_unexpected_super_in_path_token1, 306), (sym_line_comment, 3),
     (anon_sym_LBRACE, 308), (aux_sym_test_pragma_token1, 9), (aux_sym_once_pragma_token1, 11),
     (aux_sym_must_call_pragma_token1, 13), (aux_sym_export_pragma_token1, 15),
     (anon_sym_SEMI, 310), (anon_sym_PERCENT, 312), (aux_sym_input_decls_token1, 314),
     (aux_sym_output_decls_token1, 316), (aux_sym_in_out_decls_token1, 318),
     (aux_sym_var_decls_token1, 320), (aux_sym_temp_var_decls_token1, 322),
     (aux_sym_external_var_decls_token1, 324), (aux_sym_global_var_decls_token1, 326),
     (aux_sym_fb_decl_token4, 804), (aux_sym_method_decl_token1, 330),
     (aux_sym_prog_access_decls_token1, 332), (aux_sym_initial_step_token1, 334),
     (aux_sym_config_init_token1, 336), (aux_sym_using_directive_token1, 338),
     (aux_sym__stmt_token1, 340), (aux_sym__stmt_token2, 340), (aux_sym__stmt_token3, 340),
     (aux_sym_if_stmt_token1, 342), (aux_sym_case_stmt_token1, 344), (aux_sym_for_stmt_token1, 346),
     (aux_sym_while_stmt_token1, 348), (aux_sym_repeat_stmt_token1, 350),
     (aux_sym_raise_stmt_token1, 352), (aux_sym_try_stmt_token1, 354),
     (aux_sym_try_stmt_token2, 356), (aux_sym_catch_clause_token1, 356),
     (aux_sym_finally_clause_token1, 356), (sym_ld_rung, 358), (sym_fbd_network, 360),
     (sym_c_style_comment, 3), (sym_pascal_style_comment, 3), (sym_pragma, 3)]"

lemma ts_parse_row_237_scan: "row_scan tokens_63_2 0 ts_parse_row_237 = Some (Suc (Suc (Suc (Suc 0))))"
  unfolding ts_parse_row_237_def by simp

text \<open>Lines 81902 to 82017.\<close>

definition ts_parse_row_238 :: parse_row where
  "ts_parse_row_238 =
    [(sym_ERR_assign_func_call, 7530), (sym_ERR_unexpected_this_in_path, 2372),
     (sym_ERR_unexpected_super_in_path, 2372), (sym_ERR_fb_variables_after_method, 1529),
     (sym_ERR_var_access_not_allowed, 3160), (sym_ERR_var_config_not_allowed, 3160),
     (sym_ERR_var_global_not_allowed, 3160), (sym_ERR_method_decl_in_body, 3150),
     (sym_extern_pragma, 7490), (sym_wasm_pragma, 3150), (sym_warn_pragma, 7490),
     (sym_allow_pragma, 3140), (sym_test_pragma, 7490), (sym_once_pragma, 7490),
     (sym_must_call_pragma, 7490), (sym_export_pragma, 7490), (sym_pou_pragma, 7194),
     (sym_direct_variable, 7675), (sym_deref_expression, 2373), (sym_variable, 7599),
     (sym_var_access, 2373), (sym_in_out_decls, 3160), (sym_var_decls, 3160),
     (sym_retain_var_decls, 3160), (sym_temp_var_decls, 3160), (sym_external_var_decls, 3160),
     (sym_global_var_decls, 2947), (sym_loc_partly_var_decl, 3160), (sym__fb_variables, 714),
     (sym_fb_input_decls, 3160), (sym_fb_output_decls, 3160), (sym_no_retain_var_decls, 3160),
     (sym_fb_body, 9020), (sym_method_decl, 715), (sym_prog_access_decls, 3043), (sym_SFC, 7970),
     (sym_SFC_network, 7612), (sym_initial_step, 7439), (sym_config_init, 3047),
     (sym_using_directive, 2991), (sym_variable_access, 7530), (sym_func_call, 2961),
     (sym_stmt_list, 7970), (sym__stmt, 2024), (sym_assign, 3150), (sym_if_stmt, 3150),
     (sym_case_stmt, 3150), (sym_for_stmt, 3150), (sym_while_stmt, 3150), (sym_repeat_stmt, 3150),
     (sym_raise_stmt, 3150), (sym_try_stmt, 3150), (sym_ERR_clause_outside_try, 3150),
     (sym_begin_path_expression, 2943), (sym_invocation, 2934), (sym_any_invocation, 2935),
     (sym_this_invocation, 2641), (sym_super_invocation, 2641), (sym_super_body_invocation, 2935),
     (sym_path_expression, 2627), (sym_field_expression, 2373), (sym_index_expression, 2373),
     (sym_ladder_diagram, 7970), (sym_fb_diagram, 7970),
     (aux_sym_ERR_fb_variables_after_method_repeat1, 714), (aux_sym_func_decl_repeat1, 7194),
     (aux_sym_func_decl_repeat2, 2991), (aux_sym_fb_decl_repeat3, 715), (aux_sym_SFC_repeat1, 7612),
     (aux_sym_stmt_list_repeat1, 2024), (aux_sym_ladder_diagram_repeat1, 8009),
     (aux_sym_fb_diagram_repeat1, 8013), (sym_identifier, 298),
     (aux_sym_ERR_unexpected_this_in_path_token1, 304),
     (aux_sym_ERR_unexpected_super_in_path_token1, 306), (sym_line_comment, 3),
     (anon_sym_LBRACE, 308), (aux_sym_test_pragma_token1, 9), (aux_sym_once_pragma_token1, 11),
     (aux_sym_must_call_pragma_token1, 13), (aux_sym_export_pragma_token1, 15),
     (anon_sym_SEMI, 310), (anon_sym_PERCENT, 312), (aux_sym_input_decls_token1, 314),
     (aux_sym_output_decls_token1, 316), (aux_sym_in_out_decls_token1, 318),
     (aux_sym_var_decls_token1, 320), (aux_sym_temp_var_decls_token1, 322),
     (aux_sym_external_var_decls_token1, 324), (aux_sym_global_var_decls_token1, 326),
     (aux_sym_fb_decl_token4, 806), (aux_sym_method_decl_token1, 330),
     (aux_sym_prog_access_decls_token1, 332), (aux_sym_initial_step_token1, 334),
     (aux_sym_config_init_token1, 336), (aux_sym_using_directive_token1, 338),
     (aux_sym__stmt_token1, 340), (aux_sym__stmt_token2, 340), (aux_sym__stmt_token3, 340),
     (aux_sym_if_stmt_token1, 342), (aux_sym_case_stmt_token1, 344), (aux_sym_for_stmt_token1, 346),
     (aux_sym_while_stmt_token1, 348), (aux_sym_repeat_stmt_token1, 350),
     (aux_sym_raise_stmt_token1, 352), (aux_sym_try_stmt_token1, 354),
     (aux_sym_try_stmt_token2, 356), (aux_sym_catch_clause_token1, 356),
     (aux_sym_finally_clause_token1, 356), (sym_ld_rung, 358), (sym_fbd_network, 360),
     (sym_c_style_comment, 3), (sym_pascal_style_comment, 3), (sym_pragma, 3)]"

lemma ts_parse_row_238_scan: "row_scan tokens_63_2 0 ts_parse_row_238 = Some (Suc (Suc (Suc (Suc 0))))"
  unfolding ts_parse_row_238_def by simp

text \<open>Lines 82018 to 82133.\<close>

definition ts_parse_row_239 :: parse_row where
  "ts_parse_row_239 =
    [(sym_ERR_assign_func_call, 7530), (sym_ERR_unexpected_this_in_path, 2372),
     (sym_ERR_unexpected_super_in_path, 2372), (sym_ERR_fb_variables_after_method, 1973),
     (sym_ERR_var_access_not_allowed, 3160), (sym_ERR_var_config_not_allowed, 3160),
     (sym_ERR_var_global_not_allowed, 3160), (sym_ERR_method_decl_in_body, 3150),
     (sym_extern_pragma, 7490), (sym_wasm_pragma, 3150), (sym_warn_pragma, 7490),
     (sym_allow_pragma, 3140), (sym_test_pragma, 7490), (sym_once_pragma, 7490),
     (sym_must_call_pragma, 7490), (sym_export_pragma, 7490), (sym_pou_pragma, 7194),
     (sym_direct_variable, 7675), (sym_deref_expression, 2373), (sym_variable, 7599),
     (sym_var_access, 2373), (sym_in_out_decls, 3160), (sym_var_decls, 3160),
     (sym_retain_var_decls, 3160), (sym_temp_var_decls, 3160), (sym_external_var_decls, 3160),
     (sym_global_var_decls, 2947), (sym_loc_partly_var_decl, 3160), (sym__fb_variables, 491),
     (sym_fb_input_decls, 3160), (sym_fb_output_decls, 3160), (sym_no_retain_var_decls, 3160),
     (sym_fb_body, 8343), (sym_method_decl, 492), (sym_prog_access_decls, 3043), (sym_SFC, 7970),
     (sym_SFC_network, 7612), (sym_initial_step, 7439), (sym_config_init, 3047),
     (sym_using_directive, 2991), (sym_variable_access, 7530), (sym_func_call, 2961),
     (sym_stmt_list, 7970), (sym__stmt, 2024), (sym_assign, 3150), (sym_if_stmt, 3150),
     (sym_case_stmt, 3150), (sym_for_stmt, 3150), (sym_while_stmt, 3150), (sym_repeat_stmt, 3150),
     (sym_raise_stmt, 3150), (sym_try_stmt, 3150), (sym_ERR_clause_outside_try, 3150),
     (sym_begin_path_expression, 2943), (sym_invocation, 2934), (sym_any_invocation, 2935),
     (sym_this_invocation, 2641), (sym_super_invocation, 2641), (sym_super_body_invocation, 2935),
     (sym_path_expression, 2627), (sym_field_expression, 2373), (sym_index_expression, 2373),
     (sym_ladder_diagram, 7970), (sym_fb_diagram, 7970),
     (aux_sym_ERR_fb_variables_after_method_repeat1, 491), (aux_sym_func_decl_repeat1, 7194),
     (aux_sym_func_decl_repeat2, 2991), (aux_sym_fb_decl_repeat3, 492), (aux_sym_SFC_repeat1, 7612),
     (aux_sym_stmt_list_repeat1, 2024), (aux_sym_ladder_diagram_repeat1, 8009),
     (aux_sym_fb_diagram_repeat1, 8013), (sym_identifier, 298),
     (aux_sym_ERR_unexpected_this_in_path_token1, 304),
     (aux_sym_ERR_unexpected_super_in_path_token1, 306), (sym_line_comment, 3),
     (anon_sym_LBRACE, 308), (aux_sym_test_pragma_token1, 9), (aux_sym_once_pragma_token1, 11),
     (aux_sym_must_call_pragma_token1, 13), (aux_sym_export_pragma_token1, 15),
     (anon_sym_SEMI, 310), (anon_sym_PERCENT, 312), (aux_sym_input_decls_token1, 314),
     (aux_sym_output_decls_token1, 316), (aux_sym_in_out_decls_token1, 318),
     (aux_sym_var_decls_token1, 320), (aux_sym_temp_var_decls_token1, 322),
     (aux_sym_external_var_decls_token1, 324), (aux_sym_global_var_decls_token1, 326),
     (aux_sym_fb_decl_token4, 808), (aux_sym_method_decl_token1, 330),
     (aux_sym_prog_access_decls_token1, 332), (aux_sym_initial_step_token1, 334),
     (aux_sym_config_init_token1, 336), (aux_sym_using_directive_token1, 338),
     (aux_sym__stmt_token1, 340), (aux_sym__stmt_token2, 340), (aux_sym__stmt_token3, 340),
     (aux_sym_if_stmt_token1, 342), (aux_sym_case_stmt_token1, 344), (aux_sym_for_stmt_token1, 346),
     (aux_sym_while_stmt_token1, 348), (aux_sym_repeat_stmt_token1, 350),
     (aux_sym_raise_stmt_token1, 352), (aux_sym_try_stmt_token1, 354),
     (aux_sym_try_stmt_token2, 356), (aux_sym_catch_clause_token1, 356),
     (aux_sym_finally_clause_token1, 356), (sym_ld_rung, 358), (sym_fbd_network, 360),
     (sym_c_style_comment, 3), (sym_pascal_style_comment, 3), (sym_pragma, 3)]"

lemma ts_parse_row_239_scan: "row_scan tokens_63_2 0 ts_parse_row_239 = Some (Suc (Suc (Suc (Suc 0))))"
  unfolding ts_parse_row_239_def by simp

text \<open>Lines 82134 to 82249.\<close>

definition ts_parse_row_240 :: parse_row where
  "ts_parse_row_240 =
    [(sym_ERR_assign_func_call, 7530), (sym_ERR_unexpected_this_in_path, 2372),
     (sym_ERR_unexpected_super_in_path, 2372), (sym_ERR_fb_variables_after_method, 1542),
     (sym_ERR_var_access_not_allowed, 3160), (sym_ERR_var_config_not_allowed, 3160),
     (sym_ERR_var_global_not_allowed, 3160), (sym_ERR_method_decl_in_body, 3150),
     (sym_extern_pragma, 7490), (sym_wasm_pragma, 3150), (sym_warn_pragma, 7490),
     (sym_allow_pragma, 3140), (sym_test_pragma, 7490), (sym_once_pragma, 7490),
     (sym_must_call_pragma, 7490), (sym_export_pragma, 7490), (sym_pou_pragma, 7194),
     (sym_direct_variable, 7675), (sym_deref_expression, 2373), (sym_variable, 7599),
     (sym_var_access, 2373), (sym_in_out_decls, 3160), (sym_var_decls, 3160),
     (sym_retain_var_decls, 3160), (sym_temp_var_decls, 3160), (sym_external_var_decls, 3160),
     (sym_global_var_decls, 2947), (sym_loc_partly_var_decl, 3160), (sym__fb_variables, 722),
     (sym_fb_input_decls, 3160), (sym_fb_output_decls, 3160), (sym_no_retain_var_decls, 3160),
     (sym_fb_body, 9147), (sym_method_decl, 723), (sym_prog_access_decls, 3043), (sym_SFC, 7970),
     (sym_SFC_network, 7612), (sym_initial_step, 7439), (sym_config_init, 3047),
     (sym_using_directive, 2991), (sym_variable_access, 7530), (sym_func_call, 2961),
     (sym_stmt_list, 7970), (sym__stmt, 2024), (sym_assign, 3150), (sym_if_stmt, 3150),
     (sym_case_stmt, 3150), (sym_for_stmt, 3150), (sym_while_stmt, 3150), (sym_repeat_stmt, 3150),
     (sym_raise_stmt, 3150), (sym_try_stmt, 3150), (sym_ERR_clause_outside_try, 3150),
     (sym_begin_path_expression, 2943), (sym_invocation, 2934), (sym_any_invocation, 2935),
     (sym_this_invocation, 2641), (sym_super_invocation, 2641), (sym_super_body_invocation, 2935),
     (sym_path_expression, 2627), (sym_field_expression, 2373), (sym_index_expression, 2373),
     (sym_ladder_diagram, 7970), (sym_fb_diagram, 7970),
     (aux_sym_ERR_fb_variables_after_method_repeat1, 722), (aux_sym_func_decl_repeat1, 7194),
     (aux_sym_func_decl_repeat2, 2991), (aux_sym_fb_decl_repeat3, 723), (aux_sym_SFC_repeat1, 7612),
     (aux_sym_stmt_list_repeat1, 2024), (aux_sym_ladder_diagram_repeat1, 8009),
     (aux_sym_fb_diagram_repeat1, 8013), (sym_identifier, 298),
     (aux_sym_ERR_unexpected_this_in_path_token1, 304),
     (aux_sym_ERR_unexpected_super_in_path_token1, 306), (sym_line_comment, 3),
     (anon_sym_LBRACE, 308), (aux_sym_test_pragma_token1, 9), (aux_sym_once_pragma_token1, 11),
     (aux_sym_must_call_pragma_token1, 13), (aux_sym_export_pragma_token1, 15),
     (anon_sym_SEMI, 310), (anon_sym_PERCENT, 312), (aux_sym_input_decls_token1, 314),
     (aux_sym_output_decls_token1, 316), (aux_sym_in_out_decls_token1, 318),
     (aux_sym_var_decls_token1, 320), (aux_sym_temp_var_decls_token1, 322),
     (aux_sym_external_var_decls_token1, 324), (aux_sym_global_var_decls_token1, 326),
     (aux_sym_fb_decl_token4, 810), (aux_sym_method_decl_token1, 330),
     (aux_sym_prog_access_decls_token1, 332), (aux_sym_initial_step_token1, 334),
     (aux_sym_config_init_token1, 336), (aux_sym_using_directive_token1, 338),
     (aux_sym__stmt_token1, 340), (aux_sym__stmt_token2, 340), (aux_sym__stmt_token3, 340),
     (aux_sym_if_stmt_token1, 342), (aux_sym_case_stmt_token1, 344), (aux_sym_for_stmt_token1, 346),
     (aux_sym_while_stmt_token1, 348), (aux_sym_repeat_stmt_token1, 350),
     (aux_sym_raise_stmt_token1, 352), (aux_sym_try_stmt_token1, 354),
     (aux_sym_try_stmt_token2, 356), (aux_sym_catch_clause_token1, 356),
     (aux_sym_finally_clause_token1, 356), (sym_ld_rung, 358), (sym_fbd_network, 360),
     (sym_c_style_comment, 3), (sym_pascal_style_comment, 3), (sym_pragma, 3)]"

lemma ts_parse_row_240_scan: "row_scan tokens_63_2 0 ts_parse_row_240 = Some (Suc (Suc (Suc (Suc 0))))"
  unfolding ts_parse_row_240_def by simp

text \<open>Lines 82250 to 82365.\<close>

definition ts_parse_row_241 :: parse_row where
  "ts_parse_row_241 =
    [(sym_ERR_assign_func_call, 7530), (sym_ERR_unexpected_this_in_path, 2372),
     (sym_ERR_unexpected_super_in_path, 2372), (sym_ERR_fb_variables_after_method, 1980),
     (sym_ERR_var_access_not_allowed, 3160), (sym_ERR_var_config_not_allowed, 3160),
     (sym_ERR_var_global_not_allowed, 3160), (sym_ERR_method_decl_in_body, 3150),
     (sym_extern_pragma, 7490), (sym_wasm_pragma, 3150), (sym_warn_pragma, 7490),
     (sym_allow_pragma, 3140), (sym_test_pragma, 7490), (sym_once_pragma, 7490),
     (sym_must_call_pragma, 7490), (sym_export_pragma, 7490), (sym_pou_pragma, 7194),
     (sym_direct_variable, 7675), (sym_deref_expression, 2373), (sym_variable, 7599),
     (sym_var_access, 2373), (sym_in_out_decls, 3160), (sym_var_decls, 3160),
     (sym_retain_var_decls, 3160), (sym_temp_var_decls, 3160), (sym_external_var_decls, 3160),
     (sym_global_var_decls, 2947), (sym_loc_partly_var_decl, 3160), (sym__fb_variables, 495),
     (sym_fb_input_decls, 3160), (sym_fb_output_decls, 3160), (sym_no_retain_var_decls, 3160),
     (sym_fb_body, 8408), (sym_method_decl, 496), (sym_prog_access_decls, 3043), (sym_SFC, 7970),
     (sym_SFC_network, 7612), (sym_initial_step, 7439), (sym_config_init, 3047),
     (sym_using_directive, 2991), (sym_variable_access, 7530), (sym_func_call, 2961),
     (sym_stmt_list, 7970), (sym__stmt, 2024), (sym_assign, 3150), (sym_if_stmt, 3150),
     (sym_case_stmt, 3150), (sym_for_stmt, 3150), (sym_while_stmt, 3150), (sym_repeat_stmt, 3150),
     (sym_raise_stmt, 3150), (sym_try_stmt, 3150), (sym_ERR_clause_outside_try, 3150),
     (sym_begin_path_expression, 2943), (sym_invocation, 2934), (sym_any_invocation, 2935),
     (sym_this_invocation, 2641), (sym_super_invocation, 2641), (sym_super_body_invocation, 2935),
     (sym_path_expression, 2627), (sym_field_expression, 2373), (sym_index_expression, 2373),
     (sym_ladder_diagram, 7970), (sym_fb_diagram, 7970),
     (aux_sym_ERR_fb_variables_after_method_repeat1, 495), (aux_sym_func_decl_repeat1, 7194),
     (aux_sym_func_decl_repeat2, 2991), (aux_sym_fb_decl_repeat3, 496), (aux_sym_SFC_repeat1, 7612),
     (aux_sym_stmt_list_repeat1, 2024), (aux_sym_ladder_diagram_repeat1, 8009),
     (aux_sym_fb_diagram_repeat1, 8013), (sym_identifier, 298),
     (aux_sym_ERR_unexpected_this_in_path_token1, 304),
     (aux_sym_ERR_unexpected_super_in_path_token1, 306), (sym_line_comment, 3),
     (anon_sym_LBRACE, 308), (aux_sym_test_pragma_token1, 9), (aux_sym_once_pragma_token1, 11),
     (aux_sym_must_call_pragma_token1, 13), (aux_sym_export_pragma_token1, 15),
     (anon_sym_SEMI, 310), (anon_sym_PERCENT, 312), (aux_sym_input_decls_token1, 314),
     (aux_sym_output_decls_token1, 316), (aux_sym_in_out_decls_token1, 318),
     (aux_sym_var_decls_token1, 320), (aux_sym_temp_var_decls_token1, 322),
     (aux_sym_external_var_decls_token1, 324), (aux_sym_global_var_decls_token1, 326),
     (aux_sym_fb_decl_token4, 812), (aux_sym_method_decl_token1, 330),
     (aux_sym_prog_access_decls_token1, 332), (aux_sym_initial_step_token1, 334),
     (aux_sym_config_init_token1, 336), (aux_sym_using_directive_token1, 338),
     (aux_sym__stmt_token1, 340), (aux_sym__stmt_token2, 340), (aux_sym__stmt_token3, 340),
     (aux_sym_if_stmt_token1, 342), (aux_sym_case_stmt_token1, 344), (aux_sym_for_stmt_token1, 346),
     (aux_sym_while_stmt_token1, 348), (aux_sym_repeat_stmt_token1, 350),
     (aux_sym_raise_stmt_token1, 352), (aux_sym_try_stmt_token1, 354),
     (aux_sym_try_stmt_token2, 356), (aux_sym_catch_clause_token1, 356),
     (aux_sym_finally_clause_token1, 356), (sym_ld_rung, 358), (sym_fbd_network, 360),
     (sym_c_style_comment, 3), (sym_pascal_style_comment, 3), (sym_pragma, 3)]"

lemma ts_parse_row_241_scan: "row_scan tokens_63_2 0 ts_parse_row_241 = Some (Suc (Suc (Suc (Suc 0))))"
  unfolding ts_parse_row_241_def by simp

text \<open>Lines 82366 to 82481.\<close>

definition ts_parse_row_242 :: parse_row where
  "ts_parse_row_242 =
    [(sym_ERR_assign_func_call, 7530), (sym_ERR_unexpected_this_in_path, 2372),
     (sym_ERR_unexpected_super_in_path, 2372), (sym_ERR_fb_variables_after_method, 1279),
     (sym_ERR_var_access_not_allowed, 3160), (sym_ERR_var_config_not_allowed, 3160),
     (sym_ERR_var_global_not_allowed, 3160), (sym_ERR_method_decl_in_body, 3150),
     (sym_extern_pragma, 7490), (sym_wasm_pragma, 3150), (sym_warn_pragma, 7490),
     (sym_allow_pragma, 3140), (sym_test_pragma, 7490), (sym_once_pragma, 7490),
     (sym_must_call_pragma, 7490), (sym_export_pragma, 7490), (sym_pou_pragma, 7194),
     (sym_direct_variable, 7675), (sym_deref_expression, 2373), (sym_variable, 7599),
     (sym_var_access, 2373), (sym_in_out_decls, 3160), (sym_var_decls, 3160),
     (sym_retain_var_decls, 3160), (sym_temp_var_decls, 3160), (sym_external_var_decls, 3160),
     (sym_global_var_decls, 2947), (sym_loc_partly_var_decl, 3160), (sym__fb_variables, 643),
     (sym_fb_input_decls, 3160), (sym_fb_output_decls, 3160), (sym_no_retain_var_decls, 3160),
     (sym_fb_body, 9720), (sym_method_decl, 666), (sym_prog_access_decls, 3043), (sym_SFC, 7970),
     (sym_SFC_network, 7612), (sym_initial_step, 7439), (sym_config_init, 3047),
     (sym_using_directive, 2991), (sym_variable_access, 7530), (sym_func_call, 2961),
     (sym_stmt_list, 7970), (sym__stmt, 2024), (sym_assign, 3150), (sym_if_stmt, 3150),
     (sym_case_stmt, 3150), (sym_for_stmt, 3150), (sym_while_stmt, 3150), (sym_repeat_stmt, 3150),
     (sym_raise_stmt, 3150), (sym_try_stmt, 3150), (sym_ERR_clause_outside_try, 3150),
     (sym_begin_path_expression, 2943), (sym_invocation, 2934), (sym_any_invocation, 2935),
     (sym_this_invocation, 2641), (sym_super_invocation, 2641), (sym_super_body_invocation, 2935),
     (sym_path_expression, 2627), (sym_field_expression, 2373), (sym_index_expression, 2373),
     (sym_ladder_diagram, 7970), (sym_fb_diagram, 7970),
     (aux_sym_ERR_fb_variables_after_method_repeat1, 643), (aux_sym_func_decl_repeat1, 7194),
     (aux_sym_func_decl_repeat2, 2991), (aux_sym_fb_decl_repeat3, 666), (aux_sym_SFC_repeat1, 7612),
     (aux_sym_stmt_list_repeat1, 2024), (aux_sym_ladder_diagram_repeat1, 8009),
     (aux_sym_fb_diagram_repeat1, 8013), (sym_identifier, 298),
     (aux_sym_ERR_unexpected_this_in_path_token1, 304),
     (aux_sym_ERR_unexpected_super_in_path_token1, 306), (sym_line_comment, 3),
     (anon_sym_LBRACE, 308), (aux_sym_test_pragma_token1, 9), (aux_sym_once_pragma_token1, 11),
     (aux_sym_must_call_pragma_token1, 13), (aux_sym_export_pragma_token1, 15),
     (anon_sym_SEMI, 310), (anon_sym_PERCENT, 312), (aux_sym_input_decls_token1, 314),
     (aux_sym_output_decls_token1, 316), (aux_sym_in_out_decls_token1, 318),
     (aux_sym_var_decls_token1, 320), (aux_sym_temp_var_decls_token1, 322),
     (aux_sym_external_var_decls_token1, 324), (aux_sym_global_var_decls_token1, 326),
     (aux_sym_fb_decl_token4, 814), (aux_sym_method_decl_token1, 330),
     (aux_sym_prog_access_decls_token1, 332), (aux_sym_initial_step_token1, 334),
     (aux_sym_config_init_token1, 336), (aux_sym_using_directive_token1, 338),
     (aux_sym__stmt_token1, 340), (aux_sym__stmt_token2, 340), (aux_sym__stmt_token3, 340),
     (aux_sym_if_stmt_token1, 342), (aux_sym_case_stmt_token1, 344), (aux_sym_for_stmt_token1, 346),
     (aux_sym_while_stmt_token1, 348), (aux_sym_repeat_stmt_token1, 350),
     (aux_sym_raise_stmt_token1, 352), (aux_sym_try_stmt_token1, 354),
     (aux_sym_try_stmt_token2, 356), (aux_sym_catch_clause_token1, 356),
     (aux_sym_finally_clause_token1, 356), (sym_ld_rung, 358), (sym_fbd_network, 360),
     (sym_c_style_comment, 3), (sym_pascal_style_comment, 3), (sym_pragma, 3)]"

lemma ts_parse_row_242_scan: "row_scan tokens_63_2 0 ts_parse_row_242 = Some (Suc (Suc (Suc (Suc 0))))"
  unfolding ts_parse_row_242_def by simp

text \<open>Lines 82482 to 82597.\<close>

definition ts_parse_row_243 :: parse_row where
  "ts_parse_row_243 =
    [(sym_ERR_assign_func_call, 7530), (sym_ERR_unexpected_this_in_path, 2372),
     (sym_ERR_unexpected_super_in_path, 2372), (sym_ERR_fb_variables_after_method, 1552),
     (sym_ERR_var_access_not_allowed, 3160), (sym_ERR_var_config_not_allowed, 3160),
     (sym_ERR_var_global_not_allowed, 3160), (sym_ERR_method_decl_in_body, 3150),
     (sym_extern_pragma, 7490), (sym_wasm_pragma, 3150), (sym_warn_pragma, 7490),
     (sym_allow_pragma, 3140), (sym_test_pragma, 7490), (sym_once_pragma, 7490),
     (sym_must_call_pragma, 7490), (sym_export_pragma, 7490), (sym_pou_pragma, 7194),
     (sym_direct_variable, 7675), (sym_deref_expression, 2373), (sym_variable, 7599),
     (sym_var_access, 2373), (sym_in_out_decls, 3160), (sym_var_decls, 3160),
     (sym_retain_var_decls, 3160), (sym_temp_var_decls, 3160), (sym_external_var_decls, 3160),
     (sym_global_var_decls, 2947), (sym_loc_partly_var_decl, 3160), (sym__fb_variables, 733),
     (sym_fb_input_decls, 3160), (sym_fb_output_decls, 3160), (sym_no_retain_var_decls, 3160),
     (sym_fb_body, 9221), (sym_method_decl, 734), (sym_prog_access_decls, 3043), (sym_SFC, 7970),
     (sym_SFC_network, 7612), (sym_initial_step, 7439), (sym_config_init, 3047),
     (sym_using_directive, 2991), (sym_variable_access, 7530), (sym_func_call, 2961),
     (sym_stmt_list, 7970), (sym__stmt, 2024), (sym_assign, 3150), (sym_if_stmt, 3150),
     (sym_case_stmt, 3150), (sym_for_stmt, 3150), (sym_while_stmt, 3150), (sym_repeat_stmt, 3150),
     (sym_raise_stmt, 3150), (sym_try_stmt, 3150), (sym_ERR_clause_outside_try, 3150),
     (sym_begin_path_expression, 2943), (sym_invocation, 2934), (sym_any_invocation, 2935),
     (sym_this_invocation, 2641), (sym_super_invocation, 2641), (sym_super_body_invocation, 2935),
     (sym_path_expression, 2627), (sym_field_expression, 2373), (sym_index_expression, 2373),
     (sym_ladder_diagram, 7970), (sym_fb_diagram, 7970),
     (aux_sym_ERR_fb_variables_after_method_repeat1, 733), (aux_sym_func_decl_repeat1, 7194),
     (aux_sym_func_decl_repeat2, 2991), (aux_sym_fb_decl_repeat3, 734), (aux_sym_SFC_repeat1, 7612),
     (aux_sym_stmt_list_repeat1, 2024), (aux_sym_ladder_diagram_repeat1, 8009),
     (aux_sym_fb_diagram_repeat1, 8013), (sym_identifier, 298),
     (aux_sym_ERR_unexpected_this_in_path_token1, 304),
     (aux_sym_ERR_unexpected_super_in_path_token1, 306), (sym_line_comment, 3),
     (anon_sym_LBRACE, 308), (aux_sym_test_pragma_token1, 9), (aux_sym_once_pragma_token1, 11),
     (aux_sym_must_call_pragma_token1, 13), (aux_sym_export_pragma_token1, 15),
     (anon_sym_SEMI, 310), (anon_sym_PERCENT, 312), (aux_sym_input_decls_token1, 314),
     (aux_sym_output_decls_token1, 316), (aux_sym_in_out_decls_token1, 318),
     (aux_sym_var_decls_token1, 320), (aux_sym_temp_var_decls_token1, 322),
     (aux_sym_external_var_decls_token1, 324), (aux_sym_global_var_decls_token1, 326),
     (aux_sym_fb_decl_token4, 816), (aux_sym_method_decl_token1, 330),
     (aux_sym_prog_access_decls_token1, 332), (aux_sym_initial_step_token1, 334),
     (aux_sym_config_init_token1, 336), (aux_sym_using_directive_token1, 338),
     (aux_sym__stmt_token1, 340), (aux_sym__stmt_token2, 340), (aux_sym__stmt_token3, 340),
     (aux_sym_if_stmt_token1, 342), (aux_sym_case_stmt_token1, 344), (aux_sym_for_stmt_token1, 346),
     (aux_sym_while_stmt_token1, 348), (aux_sym_repeat_stmt_token1, 350),
     (aux_sym_raise_stmt_token1, 352), (aux_sym_try_stmt_token1, 354),
     (aux_sym_try_stmt_token2, 356), (aux_sym_catch_clause_token1, 356),
     (aux_sym_finally_clause_token1, 356), (sym_ld_rung, 358), (sym_fbd_network, 360),
     (sym_c_style_comment, 3), (sym_pascal_style_comment, 3), (sym_pragma, 3)]"

lemma ts_parse_row_243_scan: "row_scan tokens_63_2 0 ts_parse_row_243 = Some (Suc (Suc (Suc (Suc 0))))"
  unfolding ts_parse_row_243_def by simp

text \<open>Lines 82598 to 82713.\<close>

definition ts_parse_row_244 :: parse_row where
  "ts_parse_row_244 =
    [(sym_ERR_assign_func_call, 7530), (sym_ERR_unexpected_this_in_path, 2372),
     (sym_ERR_unexpected_super_in_path, 2372), (sym_ERR_fb_variables_after_method, 1559),
     (sym_ERR_var_access_not_allowed, 3160), (sym_ERR_var_config_not_allowed, 3160),
     (sym_ERR_var_global_not_allowed, 3160), (sym_ERR_method_decl_in_body, 3150),
     (sym_extern_pragma, 7490), (sym_wasm_pragma, 3150), (sym_warn_pragma, 7490),
     (sym_allow_pragma, 3140), (sym_test_pragma, 7490), (sym_once_pragma, 7490),
     (sym_must_call_pragma, 7490), (sym_export_pragma, 7490), (sym_pou_pragma, 7194),
     (sym_direct_variable, 7675), (sym_deref_expression, 2373), (sym_variable, 7599),
     (sym_var_access, 2373), (sym_in_out_decls, 3160), (sym_var_decls, 3160),
     (sym_retain_var_decls, 3160), (sym_temp_var_decls, 3160), (sym_external_var_decls, 3160),
     (sym_global_var_decls, 2947), (sym_loc_partly_var_decl, 3160), (sym__fb_variables, 737),
     (sym_fb_input_decls, 3160), (sym_fb_output_decls, 3160), (sym_no_retain_var_decls, 3160),
     (sym_fb_body, 9265), (sym_method_decl, 738), (sym_prog_access_decls, 3043), (sym_SFC, 7970),
     (sym_SFC_network, 7612), (sym_initial_step, 7439), (sym_config_init, 3047),
     (sym_using_directive, 2991), (sym_variable_access, 7530), (sym_func_call, 2961),
     (sym_stmt_list, 7970), (sym__stmt, 2024), (sym_assign, 3150), (sym_if_stmt, 3150),
     (sym_case_stmt, 3150), (sym_for_stmt, 3150), (sym_while_stmt, 3150), (sym_repeat_stmt, 3150),
     (sym_raise_stmt, 3150), (sym_try_stmt, 3150), (sym_ERR_clause_outside_try, 3150),
     (sym_begin_path_expression, 2943), (sym_invocation, 2934), (sym_any_invocation, 2935),
     (sym_this_invocation, 2641), (sym_super_invocation, 2641), (sym_super_body_invocation, 2935),
     (sym_path_expression, 2627), (sym_field_expression, 2373), (sym_index_expression, 2373),
     (sym_ladder_diagram, 7970), (sym_fb_diagram, 7970),
     (aux_sym_ERR_fb_variables_after_method_repeat1, 737), (aux_sym_func_decl_repeat1, 7194),
     (aux_sym_func_decl_repeat2, 2991), (aux_sym_fb_decl_repeat3, 738), (aux_sym_SFC_repeat1, 7612),
     (aux_sym_stmt_list_repeat1, 2024), (aux_sym_ladder_diagram_repeat1, 8009),
     (aux_sym_fb_diagram_repeat1, 8013), (sym_identifier, 298),
     (aux_sym_ERR_unexpected_this_in_path_token1, 304),
     (aux_sym_ERR_unexpected_super_in_path_token1, 306), (sym_line_comment, 3),
     (anon_sym_LBRACE, 308), (aux_sym_test_pragma_token1, 9), (aux_sym_once_pragma_token1, 11),
     (aux_sym_must_call_pragma_token1, 13), (aux_sym_export_pragma_token1, 15),
     (anon_sym_SEMI, 310), (anon_sym_PERCENT, 312), (aux_sym_input_decls_token1, 314),
     (aux_sym_output_decls_token1, 316), (aux_sym_in_out_decls_token1, 318),
     (aux_sym_var_decls_token1, 320), (aux_sym_temp_var_decls_token1, 322),
     (aux_sym_external_var_decls_token1, 324), (aux_sym_global_var_decls_token1, 326),
     (aux_sym_fb_decl_token4, 818), (aux_sym_method_decl_token1, 330),
     (aux_sym_prog_access_decls_token1, 332), (aux_sym_initial_step_token1, 334),
     (aux_sym_config_init_token1, 336), (aux_sym_using_directive_token1, 338),
     (aux_sym__stmt_token1, 340), (aux_sym__stmt_token2, 340), (aux_sym__stmt_token3, 340),
     (aux_sym_if_stmt_token1, 342), (aux_sym_case_stmt_token1, 344), (aux_sym_for_stmt_token1, 346),
     (aux_sym_while_stmt_token1, 348), (aux_sym_repeat_stmt_token1, 350),
     (aux_sym_raise_stmt_token1, 352), (aux_sym_try_stmt_token1, 354),
     (aux_sym_try_stmt_token2, 356), (aux_sym_catch_clause_token1, 356),
     (aux_sym_finally_clause_token1, 356), (sym_ld_rung, 358), (sym_fbd_network, 360),
     (sym_c_style_comment, 3), (sym_pascal_style_comment, 3), (sym_pragma, 3)]"

lemma ts_parse_row_244_scan: "row_scan tokens_63_2 0 ts_parse_row_244 = Some (Suc (Suc (Suc (Suc 0))))"
  unfolding ts_parse_row_244_def by simp

text \<open>Lines 82714 to 82829.\<close>

definition ts_parse_row_245 :: parse_row where
  "ts_parse_row_245 =
    [(sym_ERR_assign_func_call, 7530), (sym_ERR_unexpected_this_in_path, 2372),
     (sym_ERR_unexpected_super_in_path, 2372), (sym_ERR_fb_variables_after_method, 1992),
     (sym_ERR_var_access_not_allowed, 3160), (sym_ERR_var_config_not_allowed, 3160),
     (sym_ERR_var_global_not_allowed, 3160), (sym_ERR_method_decl_in_body, 3150),
     (sym_extern_pragma, 7490), (sym_wasm_pragma, 3150), (sym_warn_pragma, 7490),
     (sym_allow_pragma, 3140), (sym_test_pragma, 7490), (sym_once_pragma, 7490),
     (sym_must_call_pragma, 7490), (sym_export_pragma, 7490), (sym_pou_pragma, 7194),
     (sym_direct_variable, 7675), (sym_deref_expression, 2373), (sym_variable, 7599),
     (sym_var_access, 2373), (sym_in_out_decls, 3160), (sym_var_decls, 3160),
     (sym_retain_var_decls, 3160), (sym_temp_var_decls, 3160), (sym_external_var_decls, 3160),
     (sym_global_var_decls, 2947), (sym_loc_partly_var_decl, 3160), (sym__fb_variables, 504),
     (sym_fb_input_decls, 3160), (sym_fb_output_decls, 3160), (sym_no_retain_var_decls, 3160),
     (sym_fb_body, 8486), (sym_method_decl, 505), (sym_prog_access_decls, 3043), (sym_SFC, 7970),
     (sym_SFC_network, 7612), (sym_initial_step, 7439), (sym_config_init, 3047),
     (sym_using_directive, 2991), (sym_variable_access, 7530), (sym_func_call, 2961),
     (sym_stmt_list, 7970), (sym__stmt, 2024), (sym_assign, 3150), (sym_if_stmt, 3150),
     (sym_case_stmt, 3150), (sym_for_stmt, 3150), (sym_while_stmt, 3150), (sym_repeat_stmt, 3150),
     (sym_raise_stmt, 3150), (sym_try_stmt, 3150), (sym_ERR_clause_outside_try, 3150),
     (sym_begin_path_expression, 2943), (sym_invocation, 2934), (sym_any_invocation, 2935),
     (sym_this_invocation, 2641), (sym_super_invocation, 2641), (sym_super_body_invocation, 2935),
     (sym_path_expression, 2627), (sym_field_expression, 2373), (sym_index_expression, 2373),
     (sym_ladder_diagram, 7970), (sym_fb_diagram, 7970),
     (aux_sym_ERR_fb_variables_after_method_repeat1, 504), (aux_sym_func_decl_repeat1, 7194),
     (aux_sym_func_decl_repeat2, 2991), (aux_sym_fb_decl_repeat3, 505), (aux_sym_SFC_repeat1, 7612),
     (aux_sym_stmt_list_repeat1, 2024), (aux_sym_ladder_diagram_repeat1, 8009),
     (aux_sym_fb_diagram_repeat1, 8013), (sym_identifier, 298),
     (aux_sym_ERR_unexpected_this_in_path_token1, 304),
     (aux_sym_ERR_unexpected_super_in_path_token1, 306), (sym_line_comment, 3),
     (anon_sym_LBRACE, 308), (aux_sym_test_pragma_token1, 9), (aux_sym_once_pragma_token1, 11),
     (aux_sym_must_call_pragma_token1, 13), (aux_sym_export_pragma_token1, 15),
     (anon_sym_SEMI, 310), (anon_sym_PERCENT, 312), (aux_sym_input_decls_token1, 314),
     (aux_sym_output_decls_token1, 316), (aux_sym_in_out_decls_token1, 318),
     (aux_sym_var_decls_token1, 320), (aux_sym_temp_var_decls_token1, 322),
     (aux_sym_external_var_decls_token1, 324), (aux_sym_global_var_decls_token1, 326),
     (aux_sym_fb_decl_token4, 820), (aux_sym_method_decl_token1, 330),
     (aux_sym_prog_access_decls_token1, 332), (aux_sym_initial_step_token1, 334),
     (aux_sym_config_init_token1, 336), (aux_sym_using_directive_token1, 338),
     (aux_sym__stmt_token1, 340), (aux_sym__stmt_token2, 340), (aux_sym__stmt_token3, 340),
     (aux_sym_if_stmt_token1, 342), (aux_sym_case_stmt_token1, 344), (aux_sym_for_stmt_token1, 346),
     (aux_sym_while_stmt_token1, 348), (aux_sym_repeat_stmt_token1, 350),
     (aux_sym_raise_stmt_token1, 352), (aux_sym_try_stmt_token1, 354),
     (aux_sym_try_stmt_token2, 356), (aux_sym_catch_clause_token1, 356),
     (aux_sym_finally_clause_token1, 356), (sym_ld_rung, 358), (sym_fbd_network, 360),
     (sym_c_style_comment, 3), (sym_pascal_style_comment, 3), (sym_pragma, 3)]"

lemma ts_parse_row_245_scan: "row_scan tokens_63_2 0 ts_parse_row_245 = Some (Suc (Suc (Suc (Suc 0))))"
  unfolding ts_parse_row_245_def by simp

text \<open>Lines 82830 to 82945.\<close>

definition ts_parse_row_246 :: parse_row where
  "ts_parse_row_246 =
    [(sym_ERR_assign_func_call, 7530), (sym_ERR_unexpected_this_in_path, 2372),
     (sym_ERR_unexpected_super_in_path, 2372), (sym_ERR_fb_variables_after_method, 1575),
     (sym_ERR_var_access_not_allowed, 3160), (sym_ERR_var_config_not_allowed, 3160),
     (sym_ERR_var_global_not_allowed, 3160), (sym_ERR_method_decl_in_body, 3150),
     (sym_extern_pragma, 7490), (sym_wasm_pragma, 3150), (sym_warn_pragma, 7490),
     (sym_allow_pragma, 3140), (sym_test_pragma, 7490), (sym_once_pragma, 7490),
     (sym_must_call_pragma, 7490), (sym_export_pragma, 7490), (sym_pou_pragma, 7194),
     (sym_direct_variable, 7675), (sym_deref_expression, 2373), (sym_variable, 7599),
     (sym_var_access, 2373), (sym_in_out_decls, 3160), (sym_var_decls, 3160),
     (sym_retain_var_decls, 3160), (sym_temp_var_decls, 3160), (sym_external_var_decls, 3160),
     (sym_global_var_decls, 2947), (sym_loc_partly_var_decl, 3160), (sym__fb_variables, 742),
     (sym_fb_input_decls, 3160), (sym_fb_output_decls, 3160), (sym_no_retain_var_decls, 3160),
     (sym_fb_body, 9427), (sym_method_decl, 743), (sym_prog_access_decls, 3043), (sym_SFC, 7970),
     (sym_SFC_network, 7612), (sym_initial_step, 7439), (sym_config_init, 3047),
     (sym_using_directive, 2991), (sym_variable_access, 7530), (sym_func_call, 2961),
     (sym_stmt_list, 7970), (sym__stmt, 2024), (sym_assign, 3150), (sym_if_stmt, 3150),
     (sym_case_stmt, 3150), (sym_for_stmt, 3150), (sym_while_stmt, 3150), (sym_repeat_stmt, 3150),
     (sym_raise_stmt, 3150), (sym_try_stmt, 3150), (sym_ERR_clause_outside_try, 3150),
     (sym_begin_path_expression, 2943), (sym_invocation, 2934), (sym_any_invocation, 2935),
     (sym_this_invocation, 2641), (sym_super_invocation, 2641), (sym_super_body_invocation, 2935),
     (sym_path_expression, 2627), (sym_field_expression, 2373), (sym_index_expression, 2373),
     (sym_ladder_diagram, 7970), (sym_fb_diagram, 7970),
     (aux_sym_ERR_fb_variables_after_method_repeat1, 742), (aux_sym_func_decl_repeat1, 7194),
     (aux_sym_func_decl_repeat2, 2991), (aux_sym_fb_decl_repeat3, 743), (aux_sym_SFC_repeat1, 7612),
     (aux_sym_stmt_list_repeat1, 2024), (aux_sym_ladder_diagram_repeat1, 8009),
     (aux_sym_fb_diagram_repeat1, 8013), (sym_identifier, 298),
     (aux_sym_ERR_unexpected_this_in_path_token1, 304),
     (aux_sym_ERR_unexpected_super_in_path_token1, 306), (sym_line_comment, 3),
     (anon_sym_LBRACE, 308), (aux_sym_test_pragma_token1, 9), (aux_sym_once_pragma_token1, 11),
     (aux_sym_must_call_pragma_token1, 13), (aux_sym_export_pragma_token1, 15),
     (anon_sym_SEMI, 310), (anon_sym_PERCENT, 312), (aux_sym_input_decls_token1, 314),
     (aux_sym_output_decls_token1, 316), (aux_sym_in_out_decls_token1, 318),
     (aux_sym_var_decls_token1, 320), (aux_sym_temp_var_decls_token1, 322),
     (aux_sym_external_var_decls_token1, 324), (aux_sym_global_var_decls_token1, 326),
     (aux_sym_fb_decl_token4, 822), (aux_sym_method_decl_token1, 330),
     (aux_sym_prog_access_decls_token1, 332), (aux_sym_initial_step_token1, 334),
     (aux_sym_config_init_token1, 336), (aux_sym_using_directive_token1, 338),
     (aux_sym__stmt_token1, 340), (aux_sym__stmt_token2, 340), (aux_sym__stmt_token3, 340),
     (aux_sym_if_stmt_token1, 342), (aux_sym_case_stmt_token1, 344), (aux_sym_for_stmt_token1, 346),
     (aux_sym_while_stmt_token1, 348), (aux_sym_repeat_stmt_token1, 350),
     (aux_sym_raise_stmt_token1, 352), (aux_sym_try_stmt_token1, 354),
     (aux_sym_try_stmt_token2, 356), (aux_sym_catch_clause_token1, 356),
     (aux_sym_finally_clause_token1, 356), (sym_ld_rung, 358), (sym_fbd_network, 360),
     (sym_c_style_comment, 3), (sym_pascal_style_comment, 3), (sym_pragma, 3)]"

lemma ts_parse_row_246_scan: "row_scan tokens_63_2 0 ts_parse_row_246 = Some (Suc (Suc (Suc (Suc 0))))"
  unfolding ts_parse_row_246_def by simp

text \<open>Lines 82946 to 83061.\<close>

definition ts_parse_row_247 :: parse_row where
  "ts_parse_row_247 =
    [(sym_ERR_assign_func_call, 7530), (sym_ERR_unexpected_this_in_path, 2372),
     (sym_ERR_unexpected_super_in_path, 2372), (sym_ERR_fb_variables_after_method, 1584),
     (sym_ERR_var_access_not_allowed, 3160), (sym_ERR_var_config_not_allowed, 3160),
     (sym_ERR_var_global_not_allowed, 3160), (sym_ERR_method_decl_in_body, 3150),
     (sym_extern_pragma, 7490), (sym_wasm_pragma, 3150), (sym_warn_pragma, 7490),
     (sym_allow_pragma, 3140), (sym_test_pragma, 7490), (sym_once_pragma, 7490),
     (sym_must_call_pragma, 7490), (sym_export_pragma, 7490), (sym_pou_pragma, 7194),
     (sym_direct_variable, 7675), (sym_deref_expression, 2373), (sym_variable, 7599),
     (sym_var_access, 2373), (sym_in_out_decls, 3160), (sym_var_decls, 3160),
     (sym_retain_var_decls, 3160), (sym_temp_var_decls, 3160), (sym_external_var_decls, 3160),
     (sym_global_var_decls, 2947), (sym_loc_partly_var_decl, 3160), (sym__fb_variables, 746),
     (sym_fb_input_decls, 3160), (sym_fb_output_decls, 3160), (sym_no_retain_var_decls, 3160),
     (sym_fb_body, 9510), (sym_method_decl, 747), (sym_prog_access_decls, 3043), (sym_SFC, 7970),
     (sym_SFC_network, 7612), (sym_initial_step, 7439), (sym_config_init, 3047),
     (sym_using_directive, 2991), (sym_variable_access, 7530), (sym_func_call, 2961),
     (sym_stmt_list, 7970), (sym__stmt, 2024), (sym_assign, 3150), (sym_if_stmt, 3150),
     (sym_case_stmt, 3150), (sym_for_stmt, 3150), (sym_while_stmt, 3150), (sym_repeat_stmt, 3150),
     (sym_raise_stmt, 3150), (sym_try_stmt, 3150), (sym_ERR_clause_outside_try, 3150),
     (sym_begin_path_expression, 2943), (sym_invocation, 2934), (sym_any_invocation, 2935),
     (sym_this_invocation, 2641), (sym_super_invocation, 2641), (sym_super_body_invocation, 2935),
     (sym_path_expression, 2627), (sym_field_expression, 2373), (sym_index_expression, 2373),
     (sym_ladder_diagram, 7970), (sym_fb_diagram, 7970),
     (aux_sym_ERR_fb_variables_after_method_repeat1, 746), (aux_sym_func_decl_repeat1, 7194),
     (aux_sym_func_decl_repeat2, 2991), (aux_sym_fb_decl_repeat3, 747), (aux_sym_SFC_repeat1, 7612),
     (aux_sym_stmt_list_repeat1, 2024), (aux_sym_ladder_diagram_repeat1, 8009),
     (aux_sym_fb_diagram_repeat1, 8013), (sym_identifier, 298),
     (aux_sym_ERR_unexpected_this_in_path_token1, 304),
     (aux_sym_ERR_unexpected_super_in_path_token1, 306), (sym_line_comment, 3),
     (anon_sym_LBRACE, 308), (aux_sym_test_pragma_token1, 9), (aux_sym_once_pragma_token1, 11),
     (aux_sym_must_call_pragma_token1, 13), (aux_sym_export_pragma_token1, 15),
     (anon_sym_SEMI, 310), (anon_sym_PERCENT, 312), (aux_sym_input_decls_token1, 314),
     (aux_sym_output_decls_token1, 316), (aux_sym_in_out_decls_token1, 318),
     (aux_sym_var_decls_token1, 320), (aux_sym_temp_var_decls_token1, 322),
     (aux_sym_external_var_decls_token1, 324), (aux_sym_global_var_decls_token1, 326),
     (aux_sym_fb_decl_token4, 824), (aux_sym_method_decl_token1, 330),
     (aux_sym_prog_access_decls_token1, 332), (aux_sym_initial_step_token1, 334),
     (aux_sym_config_init_token1, 336), (aux_sym_using_directive_token1, 338),
     (aux_sym__stmt_token1, 340), (aux_sym__stmt_token2, 340), (aux_sym__stmt_token3, 340),
     (aux_sym_if_stmt_token1, 342), (aux_sym_case_stmt_token1, 344), (aux_sym_for_stmt_token1, 346),
     (aux_sym_while_stmt_token1, 348), (aux_sym_repeat_stmt_token1, 350),
     (aux_sym_raise_stmt_token1, 352), (aux_sym_try_stmt_token1, 354),
     (aux_sym_try_stmt_token2, 356), (aux_sym_catch_clause_token1, 356),
     (aux_sym_finally_clause_token1, 356), (sym_ld_rung, 358), (sym_fbd_network, 360),
     (sym_c_style_comment, 3), (sym_pascal_style_comment, 3), (sym_pragma, 3)]"

lemma ts_parse_row_247_scan: "row_scan tokens_63_2 0 ts_parse_row_247 = Some (Suc (Suc (Suc (Suc 0))))"
  unfolding ts_parse_row_247_def by simp

text \<open>Lines 83062 to 83177.\<close>

definition ts_parse_row_248 :: parse_row where
  "ts_parse_row_248 =
    [(sym_ERR_assign_func_call, 7530), (sym_ERR_unexpected_this_in_path, 2372),
     (sym_ERR_unexpected_super_in_path, 2372), (sym_ERR_fb_variables_after_method, 1589),
     (sym_ERR_var_access_not_allowed, 3160), (sym_ERR_var_config_not_allowed, 3160),
     (sym_ERR_var_global_not_allowed, 3160), (sym_ERR_method_decl_in_body, 3150),
     (sym_extern_pragma, 7490), (sym_wasm_pragma, 3150), (sym_warn_pragma, 7490),
     (sym_allow_pragma, 3140), (sym_test_pragma, 7490), (sym_once_pragma, 7490),
     (sym_must_call_pragma, 7490), (sym_export_pragma, 7490), (sym_pou_pragma, 7194),
     (sym_direct_variable, 7675), (sym_deref_expression, 2373), (sym_variable, 7599),
     (sym_var_access, 2373), (sym_in_out_decls, 3160), (sym_var_decls, 3160),
     (sym_retain_var_decls, 3160), (sym_temp_var_decls, 3160), (sym_external_var_decls, 3160),
     (sym_global_var_decls, 2947), (sym_loc_partly_var_decl, 3160), (sym__fb_variables, 749),
     (sym_fb_input_decls, 3160), (sym_fb_output_decls, 3160), (sym_no_retain_var_decls, 3160),
     (sym_fb_body, 9534), (sym_method_decl, 750), (sym_prog_access_decls, 3043), (sym_SFC, 7970),
     (sym_SFC_network, 7612), (sym_initial_step, 7439), (sym_config_init, 3047),
     (sym_using_directive, 2991), (sym_variable_access, 7530), (sym_func_call, 2961),
     (sym_stmt_list, 7970), (sym__stmt, 2024), (sym_assign, 3150), (sym_if_stmt, 3150),
     (sym_case_stmt, 3150), (sym_for_stmt, 3150), (sym_while_stmt, 3150), (sym_repeat_stmt, 3150),
     (sym_raise_stmt, 3150), (sym_try_stmt, 3150), (sym_ERR_clause_outside_try, 3150),
     (sym_begin_path_expression, 2943), (sym_invocation, 2934), (sym_any_invocation, 2935),
     (sym_this_invocation, 2641), (sym_super_invocation, 2641), (sym_super_body_invocation, 2935),
     (sym_path_expression, 2627), (sym_field_expression, 2373), (sym_index_expression, 2373),
     (sym_ladder_diagram, 7970), (sym_fb_diagram, 7970),
     (aux_sym_ERR_fb_variables_after_method_repeat1, 749), (aux_sym_func_decl_repeat1, 7194),
     (aux_sym_func_decl_repeat2, 2991), (aux_sym_fb_decl_repeat3, 750), (aux_sym_SFC_repeat1, 7612),
     (aux_sym_stmt_list_repeat1, 2024), (aux_sym_ladder_diagram_repeat1, 8009),
     (aux_sym_fb_diagram_repeat1, 8013), (sym_identifier, 298),
     (aux_sym_ERR_unexpected_this_in_path_token1, 304),
     (aux_sym_ERR_unexpected_super_in_path_token1, 306), (sym_line_comment, 3),
     (anon_sym_LBRACE, 308), (aux_sym_test_pragma_token1, 9), (aux_sym_once_pragma_token1, 11),
     (aux_sym_must_call_pragma_token1, 13), (aux_sym_export_pragma_token1, 15),
     (anon_sym_SEMI, 310), (anon_sym_PERCENT, 312), (aux_sym_input_decls_token1, 314),
     (aux_sym_output_decls_token1, 316), (aux_sym_in_out_decls_token1, 318),
     (aux_sym_var_decls_token1, 320), (aux_sym_temp_var_decls_token1, 322),
     (aux_sym_external_var_decls_token1, 324), (aux_sym_global_var_decls_token1, 326),
     (aux_sym_fb_decl_token4, 826), (aux_sym_method_decl_token1, 330),
     (aux_sym_prog_access_decls_token1, 332), (aux_sym_initial_step_token1, 334),
     (aux_sym_config_init_token1, 336), (aux_sym_using_directive_token1, 338),
     (aux_sym__stmt_token1, 340), (aux_sym__stmt_token2, 340), (aux_sym__stmt_token3, 340),
     (aux_sym_if_stmt_token1, 342), (aux_sym_case_stmt_token1, 344), (aux_sym_for_stmt_token1, 346),
     (aux_sym_while_stmt_token1, 348), (aux_sym_repeat_stmt_token1, 350),
     (aux_sym_raise_stmt_token1, 352), (aux_sym_try_stmt_token1, 354),
     (aux_sym_try_stmt_token2, 356), (aux_sym_catch_clause_token1, 356),
     (aux_sym_finally_clause_token1, 356), (sym_ld_rung, 358), (sym_fbd_network, 360),
     (sym_c_style_comment, 3), (sym_pascal_style_comment, 3), (sym_pragma, 3)]"

lemma ts_parse_row_248_scan: "row_scan tokens_63_2 0 ts_parse_row_248 = Some (Suc (Suc (Suc (Suc 0))))"
  unfolding ts_parse_row_248_def by simp

text \<open>Lines 83178 to 83293.\<close>

definition ts_parse_row_249 :: parse_row where
  "ts_parse_row_249 =
    [(sym_ERR_assign_func_call, 7530), (sym_ERR_unexpected_this_in_path, 2372),
     (sym_ERR_unexpected_super_in_path, 2372), (sym_ERR_fb_variables_after_method, 1721),
     (sym_ERR_var_access_not_allowed, 3160), (sym_ERR_var_config_not_allowed, 3160),
     (sym_ERR_var_global_not_allowed, 3160), (sym_ERR_method_decl_in_body, 3150),
     (sym_extern_pragma, 7490), (sym_wasm_pragma, 3150), (sym_warn_pragma, 7490),
     (sym_allow_pragma, 3140), (sym_test_pragma, 7490), (sym_once_pragma, 7490),
     (sym_must_call_pragma, 7490), (sym_export_pragma, 7490), (sym_pou_pragma, 7194),
     (sym_direct_variable, 7675), (sym_deref_expression, 2373), (sym_variable, 7599),
     (sym_var_access, 2373), (sym_in_out_decls, 3160), (sym_var_decls, 3160),
     (sym_retain_var_decls, 3160), (sym_temp_var_decls, 3160), (sym_external_var_decls, 3160),
     (sym_global_var_decls, 2947), (sym_loc_partly_var_decl, 3160), (sym__fb_variables, 372),
     (sym_fb_input_decls, 3160), (sym_fb_output_decls, 3160), (sym_no_retain_var_decls, 3160),
     (sym_fb_body, 9237), (sym_method_decl, 373), (sym_prog_access_decls, 3043), (sym_SFC, 7970),
     (sym_SFC_network, 7612), (sym_initial_step, 7439), (sym_config_init, 3047),
     (sym_using_directive, 2991), (sym_variable_access, 7530), (sym_func_call, 2961),
     (sym_stmt_list, 7970), (sym__stmt, 2024), (sym_assign, 3150), (sym_if_stmt, 3150),
     (sym_case_stmt, 3150), (sym_for_stmt, 3150), (sym_while_stmt, 3150), (sym_repeat_stmt, 3150),
     (sym_raise_stmt, 3150), (sym_try_stmt, 3150), (sym_ERR_clause_outside_try, 3150),
     (sym_begin_path_expression, 2943), (sym_invocation, 2934), (sym_any_invocation, 2935),
     (sym_this_invocation, 2641), (sym_super_invocation, 2641), (sym_super_body_invocation, 2935),
     (sym_path_expression, 2627), (sym_field_expression, 2373), (sym_index_expression, 2373),
     (sym_ladder_diagram, 7970), (sym_fb_diagram, 7970),
     (aux_sym_ERR_fb_variables_after_method_repeat1, 372), (aux_sym_func_decl_repeat1, 7194),
     (aux_sym_func_decl_repeat2, 2991), (aux_sym_fb_decl_repeat3, 373), (aux_sym_SFC_repeat1, 7612),
     (aux_sym_stmt_list_repeat1, 2024), (aux_sym_ladder_diagram_repeat1, 8009),
     (aux_sym_fb_diagram_repeat1, 8013), (sym_identifier, 298),
     (aux_sym_ERR_unexpected_this_in_path_token1, 304),
     (aux_sym_ERR_unexpected_super_in_path_token1, 306), (sym_line_comment, 3),
     (anon_sym_LBRACE, 308), (aux_sym_test_pragma_token1, 9), (aux_sym_once_pragma_token1, 11),
     (aux_sym_must_call_pragma_token1, 13), (aux_sym_export_pragma_token1, 15),
     (anon_sym_SEMI, 310), (anon_sym_PERCENT, 312), (aux_sym_input_decls_token1, 314),
     (aux_sym_output_decls_token1, 316), (aux_sym_in_out_decls_token1, 318),
     (aux_sym_var_decls_token1, 320), (aux_sym_temp_var_decls_token1, 322),
     (aux_sym_external_var_decls_token1, 324), (aux_sym_global_var_decls_token1, 326),
     (aux_sym_fb_decl_token4, 828), (aux_sym_method_decl_token1, 330),
     (aux_sym_prog_access_decls_token1, 332), (aux_sym_initial_step_token1, 334),
     (aux_sym_config_init_token1, 336), (aux_sym_using_directive_token1, 338),
     (aux_sym__stmt_token1, 340), (aux_sym__stmt_token2, 340), (aux_sym__stmt_token3, 340),
     (aux_sym_if_stmt_token1, 342), (aux_sym_case_stmt_token1, 344), (aux_sym_for_stmt_token1, 346),
     (aux_sym_while_stmt_token1, 348), (aux_sym_repeat_stmt_token1, 350),
     (aux_sym_raise_stmt_token1, 352), (aux_sym_try_stmt_token1, 354),
     (aux_sym_try_stmt_token2, 356), (aux_sym_catch_clause_token1, 356),
     (aux_sym_finally_clause_token1, 356), (sym_ld_rung, 358), (sym_fbd_network, 360),
     (sym_c_style_comment, 3), (sym_pascal_style_comment, 3), (sym_pragma, 3)]"

lemma ts_parse_row_249_scan: "row_scan tokens_63_2 0 ts_parse_row_249 = Some (Suc (Suc (Suc (Suc 0))))"
  unfolding ts_parse_row_249_def by simp

text \<open>Lines 83294 to 83409.\<close>

definition ts_parse_row_250 :: parse_row where
  "ts_parse_row_250 =
    [(sym_ERR_assign_func_call, 7530), (sym_ERR_unexpected_this_in_path, 2372),
     (sym_ERR_unexpected_super_in_path, 2372), (sym_ERR_fb_variables_after_method, 1619),
     (sym_ERR_var_access_not_allowed, 3160), (sym_ERR_var_config_not_allowed, 3160),
     (sym_ERR_var_global_not_allowed, 3160), (sym_ERR_method_decl_in_body, 3150),
     (sym_extern_pragma, 7490), (sym_wasm_pragma, 3150), (sym_warn_pragma, 7490),
     (sym_allow_pragma, 3140), (sym_test_pragma, 7490), (sym_once_pragma, 7490),
     (sym_must_call_pragma, 7490), (sym_export_pragma, 7490), (sym_pou_pragma, 7194),
     (sym_direct_variable, 7675), (sym_deref_expression, 2373), (sym_variable, 7599),
     (sym_var_access, 2373), (sym_in_out_decls, 3160), (sym_var_decls, 3160),
     (sym_retain_var_decls, 3160), (sym_temp_var_decls, 3160), (sym_external_var_decls, 3160),
     (sym_global_var_decls, 2947), (sym_loc_partly_var_decl, 3160), (sym__fb_variables, 760),
     (sym_fb_input_decls, 3160), (sym_fb_output_decls, 3160), (sym_no_retain_var_decls, 3160),
     (sym_fb_body, 9771), (sym_method_decl, 761), (sym_prog_access_decls, 3043), (sym_SFC, 7970),
     (sym_SFC_network, 7612), (sym_initial_step, 7439), (sym_config_init, 3047),
     (sym_using_directive, 2991), (sym_variable_access, 7530), (sym_func_call, 2961),
     (sym_stmt_list, 7970), (sym__stmt, 2024), (sym_assign, 3150), (sym_if_stmt, 3150),
     (sym_case_stmt, 3150), (sym_for_stmt, 3150), (sym_while_stmt, 3150), (sym_repeat_stmt, 3150),
     (sym_raise_stmt, 3150), (sym_try_stmt, 3150), (sym_ERR_clause_outside_try, 3150),
     (sym_begin_path_expression, 2943), (sym_invocation, 2934), (sym_any_invocation, 2935),
     (sym_this_invocation, 2641), (sym_super_invocation, 2641), (sym_super_body_invocation, 2935),
     (sym_path_expression, 2627), (sym_field_expression, 2373), (sym_index_expression, 2373),
     (sym_ladder_diagram, 7970), (sym_fb_diagram, 7970),
     (aux_sym_ERR_fb_variables_after_method_repeat1, 760), (aux_sym_func_decl_repeat1, 7194),
     (aux_sym_func_decl_repeat2, 2991), (aux_sym_fb_decl_repeat3, 761), (aux_sym_SFC_repeat1, 7612),
     (aux_sym_stmt_list_repeat1, 2024), (aux_sym_ladder_diagram_repeat1, 8009),
     (aux_sym_fb_diagram_repeat1, 8013), (sym_identifier, 298),
     (aux_sym_ERR_unexpected_this_in_path_token1, 304),
     (aux_sym_ERR_unexpected_super_in_path_token1, 306), (sym_line_comment, 3),
     (anon_sym_LBRACE, 308), (aux_sym_test_pragma_token1, 9), (aux_sym_once_pragma_token1, 11),
     (aux_sym_must_call_pragma_token1, 13), (aux_sym_export_pragma_token1, 15),
     (anon_sym_SEMI, 310), (anon_sym_PERCENT, 312), (aux_sym_input_decls_token1, 314),
     (aux_sym_output_decls_token1, 316), (aux_sym_in_out_decls_token1, 318),
     (aux_sym_var_decls_token1, 320), (aux_sym_temp_var_decls_token1, 322),
     (aux_sym_external_var_decls_token1, 324), (aux_sym_global_var_decls_token1, 326),
     (aux_sym_fb_decl_token4, 830), (aux_sym_method_decl_token1, 330),
     (aux_sym_prog_access_decls_token1, 332), (aux_sym_initial_step_token1, 334),
     (aux_sym_config_init_token1, 336), (aux_sym_using_directive_token1, 338),
     (aux_sym__stmt_token1, 340), (aux_sym__stmt_token2, 340), (aux_sym__stmt_token3, 340),
     (aux_sym_if_stmt_token1, 342), (aux_sym_case_stmt_token1, 344), (aux_sym_for_stmt_token1, 346),
     (aux_sym_while_stmt_token1, 348), (aux_sym_repeat_stmt_token1, 350),
     (aux_sym_raise_stmt_token1, 352), (aux_sym_try_stmt_token1, 354),
     (aux_sym_try_stmt_token2, 356), (aux_sym_catch_clause_token1, 356),
     (aux_sym_finally_clause_token1, 356), (sym_ld_rung, 358), (sym_fbd_network, 360),
     (sym_c_style_comment, 3), (sym_pascal_style_comment, 3), (sym_pragma, 3)]"

lemma ts_parse_row_250_scan: "row_scan tokens_63_2 0 ts_parse_row_250 = Some (Suc (Suc (Suc (Suc 0))))"
  unfolding ts_parse_row_250_def by simp

text \<open>Lines 83410 to 83525.\<close>

definition ts_parse_row_251 :: parse_row where
  "ts_parse_row_251 =
    [(sym_ERR_assign_func_call, 7530), (sym_ERR_unexpected_this_in_path, 2372),
     (sym_ERR_unexpected_super_in_path, 2372), (sym_ERR_fb_variables_after_method, 1227),
     (sym_ERR_var_access_not_allowed, 3160), (sym_ERR_var_config_not_allowed, 3160),
     (sym_ERR_var_global_not_allowed, 3160), (sym_ERR_method_decl_in_body, 3150),
     (sym_extern_pragma, 7490), (sym_wasm_pragma, 3150), (sym_warn_pragma, 7490),
     (sym_allow_pragma, 3140), (sym_test_pragma, 7490), (sym_once_pragma, 7490),
     (sym_must_call_pragma, 7490), (sym_export_pragma, 7490), (sym_pou_pragma, 7194),
     (sym_direct_variable, 7675), (sym_deref_expression, 2373), (sym_variable, 7599),
     (sym_var_access, 2373), (sym_in_out_decls, 3160), (sym_var_decls, 3160),
     (sym_retain_var_decls, 3160), (sym_temp_var_decls, 3160), (sym_external_var_decls, 3160),
     (sym_global_var_decls, 2947), (sym_loc_partly_var_decl, 3160), (sym__fb_variables, 510),
     (sym_fb_input_decls, 3160), (sym_fb_output_decls, 3160), (sym_no_retain_var_decls, 3160),
     (sym_fb_body, 8535), (sym_method_decl, 511), (sym_prog_access_decls, 3043), (sym_SFC, 7970),
     (sym_SFC_network, 7612), (sym_initial_step, 7439), (sym_config_init, 3047),
     (sym_using_directive, 2991), (sym_variable_access, 7530), (sym_func_call, 2961),
     (sym_stmt_list, 7970), (sym__stmt, 2024), (sym_assign, 3150), (sym_if_stmt, 3150),
     (sym_case_stmt, 3150), (sym_for_stmt, 3150), (sym_while_stmt, 3150), (sym_repeat_stmt, 3150),
     (sym_raise_stmt, 3150), (sym_try_stmt, 3150), (sym_ERR_clause_outside_try, 3150),
     (sym_begin_path_expression, 2943), (sym_invocation, 2934), (sym_any_invocation, 2935),
     (sym_this_invocation, 2641), (sym_super_invocation, 2641), (sym_super_body_invocation, 2935),
     (sym_path_expression, 2627), (sym_field_expression, 2373), (sym_index_expression, 2373),
     (sym_ladder_diagram, 7970), (sym_fb_diagram, 7970),
     (aux_sym_ERR_fb_variables_after_method_repeat1, 510), (aux_sym_func_decl_repeat1, 7194),
     (aux_sym_func_decl_repeat2, 2991), (aux_sym_fb_decl_repeat3, 511), (aux_sym_SFC_repeat1, 7612),
     (aux_sym_stmt_list_repeat1, 2024), (aux_sym_ladder_diagram_repeat1, 8009),
     (aux_sym_fb_diagram_repeat1, 8013), (sym_identifier, 298),
     (aux_sym_ERR_unexpected_this_in_path_token1, 304),
     (aux_sym_ERR_unexpected_super_in_path_token1, 306), (sym_line_comment, 3),
     (anon_sym_LBRACE, 308), (aux_sym_test_pragma_token1, 9), (aux_sym_once_pragma_token1, 11),
     (aux_sym_must_call_pragma_token1, 13), (aux_sym_export_pragma_token1, 15),
     (anon_sym_SEMI, 310), (anon_sym_PERCENT, 312), (aux_sym_input_decls_token1, 314),
     (aux_sym_output_decls_token1, 316), (aux_sym_in_out_decls_token1, 318),
     (aux_sym_var_decls_token1, 320), (aux_sym_temp_var_decls_token1, 322),
     (aux_sym_external_var_decls_token1, 324), (aux_sym_global_var_decls_token1, 326),
     (aux_sym_fb_decl_token4, 832), (aux_sym_method_decl_token1, 330),
     (aux_sym_prog_access_decls_token1, 332), (aux_sym_initial_step_token1, 334),
     (aux_sym_config_init_token1, 336), (aux_sym_using_directive_token1, 338),
     (aux_sym__stmt_token1, 340), (aux_sym__stmt_token2, 340), (aux_sym__stmt_token3, 340),
     (aux_sym_if_stmt_token1, 342), (aux_sym_case_stmt_token1, 344), (aux_sym_for_stmt_token1, 346),
     (aux_sym_while_stmt_token1, 348), (aux_sym_repeat_stmt_token1, 350),
     (aux_sym_raise_stmt_token1, 352), (aux_sym_try_stmt_token1, 354),
     (aux_sym_try_stmt_token2, 356), (aux_sym_catch_clause_token1, 356),
     (aux_sym_finally_clause_token1, 356), (sym_ld_rung, 358), (sym_fbd_network, 360),
     (sym_c_style_comment, 3), (sym_pascal_style_comment, 3), (sym_pragma, 3)]"

lemma ts_parse_row_251_scan: "row_scan tokens_63_2 0 ts_parse_row_251 = Some (Suc (Suc (Suc (Suc 0))))"
  unfolding ts_parse_row_251_def by simp

text \<open>Lines 83526 to 83641.\<close>

definition ts_parse_row_252 :: parse_row where
  "ts_parse_row_252 =
    [(sym_ERR_assign_func_call, 7530), (sym_ERR_unexpected_this_in_path, 2372),
     (sym_ERR_unexpected_super_in_path, 2372), (sym_ERR_fb_variables_after_method, 1634),
     (sym_ERR_var_access_not_allowed, 3160), (sym_ERR_var_config_not_allowed, 3160),
     (sym_ERR_var_global_not_allowed, 3160), (sym_ERR_method_decl_in_body, 3150),
     (sym_extern_pragma, 7490), (sym_wasm_pragma, 3150), (sym_warn_pragma, 7490),
     (sym_allow_pragma, 3140), (sym_test_pragma, 7490), (sym_once_pragma, 7490),
     (sym_must_call_pragma, 7490), (sym_export_pragma, 7490), (sym_pou_pragma, 7194),
     (sym_direct_variable, 7675), (sym_deref_expression, 2373), (sym_variable, 7599),
     (sym_var_access, 2373), (sym_in_out_decls, 3160), (sym_var_decls, 3160),
     (sym_retain_var_decls, 3160), (sym_temp_var_decls, 3160), (sym_external_var_decls, 3160),
     (sym_global_var_decls, 2947), (sym_loc_partly_var_decl, 3160), (sym__fb_variables, 764),
     (sym_fb_input_decls, 3160), (sym_fb_output_decls, 3160), (sym_no_retain_var_decls, 3160),
     (sym_fb_body, 10523), (sym_method_decl, 765), (sym_prog_access_decls, 3043), (sym_SFC, 7970),
     (sym_SFC_network, 7612), (sym_initial_step, 7439), (sym_config_init, 3047),
     (sym_using_directive, 2991), (sym_variable_access, 7530), (sym_func_call, 2961),
     (sym_stmt_list, 7970), (sym__stmt, 2024), (sym_assign, 3150), (sym_if_stmt, 3150),
     (sym_case_stmt, 3150), (sym_for_stmt, 3150), (sym_while_stmt, 3150), (sym_repeat_stmt, 3150),
     (sym_raise_stmt, 3150), (sym_try_stmt, 3150), (sym_ERR_clause_outside_try, 3150),
     (sym_begin_path_expression, 2943), (sym_invocation, 2934), (sym_any_invocation, 2935),
     (sym_this_invocation, 2641), (sym_super_invocation, 2641), (sym_super_body_invocation, 2935),
     (sym_path_expression, 2627), (sym_field_expression, 2373), (sym_index_expression, 2373),
     (sym_ladder_diagram, 7970), (sym_fb_diagram, 7970),
     (aux_sym_ERR_fb_variables_after_method_repeat1, 764), (aux_sym_func_decl_repeat1, 7194),
     (aux_sym_func_decl_repeat2, 2991), (aux_sym_fb_decl_repeat3, 765), (aux_sym_SFC_repeat1, 7612),
     (aux_sym_stmt_list_repeat1, 2024), (aux_sym_ladder_diagram_repeat1, 8009),
     (aux_sym_fb_diagram_repeat1, 8013), (sym_identifier, 298),
     (aux_sym_ERR_unexpected_this_in_path_token1, 304),
     (aux_sym_ERR_unexpected_super_in_path_token1, 306), (sym_line_comment, 3),
     (anon_sym_LBRACE, 308), (aux_sym_test_pragma_token1, 9), (aux_sym_once_pragma_token1, 11),
     (aux_sym_must_call_pragma_token1, 13), (aux_sym_export_pragma_token1, 15),
     (anon_sym_SEMI, 310), (anon_sym_PERCENT, 312), (aux_sym_input_decls_token1, 314),
     (aux_sym_output_decls_token1, 316), (aux_sym_in_out_decls_token1, 318),
     (aux_sym_var_decls_token1, 320), (aux_sym_temp_var_decls_token1, 322),
     (aux_sym_external_var_decls_token1, 324), (aux_sym_global_var_decls_token1, 326),
     (aux_sym_fb_decl_token4, 834), (aux_sym_method_decl_token1, 330),
     (aux_sym_prog_access_decls_token1, 332), (aux_sym_initial_step_token1, 334),
     (aux_sym_config_init_token1, 336), (aux_sym_using_directive_token1, 338),
     (aux_sym__stmt_token1, 340), (aux_sym__stmt_token2, 340), (aux_sym__stmt_token3, 340),
     (aux_sym_if_stmt_token1, 342), (aux_sym_case_stmt_token1, 344), (aux_sym_for_stmt_token1, 346),
     (aux_sym_while_stmt_token1, 348), (aux_sym_repeat_stmt_token1, 350),
     (aux_sym_raise_stmt_token1, 352), (aux_sym_try_stmt_token1, 354),
     (aux_sym_try_stmt_token2, 356), (aux_sym_catch_clause_token1, 356),
     (aux_sym_finally_clause_token1, 356), (sym_ld_rung, 358), (sym_fbd_network, 360),
     (sym_c_style_comment, 3), (sym_pascal_style_comment, 3), (sym_pragma, 3)]"

lemma ts_parse_row_252_scan: "row_scan tokens_63_2 0 ts_parse_row_252 = Some (Suc (Suc (Suc (Suc 0))))"
  unfolding ts_parse_row_252_def by simp

text \<open>Lines 83642 to 83757.\<close>

definition ts_parse_row_253 :: parse_row where
  "ts_parse_row_253 =
    [(sym_ERR_assign_func_call, 7530), (sym_ERR_unexpected_this_in_path, 2372),
     (sym_ERR_unexpected_super_in_path, 2372), (sym_ERR_fb_variables_after_method, 1639),
     (sym_ERR_var_access_not_allowed, 3160), (sym_ERR_var_config_not_allowed, 3160),
     (sym_ERR_var_global_not_allowed, 3160), (sym_ERR_method_decl_in_body, 3150),
     (sym_extern_pragma, 7490), (sym_wasm_pragma, 3150), (sym_warn_pragma, 7490),
     (sym_allow_pragma, 3140), (sym_test_pragma, 7490), (sym_once_pragma, 7490),
     (sym_must_call_pragma, 7490), (sym_export_pragma, 7490), (sym_pou_pragma, 7194),
     (sym_direct_variable, 7675), (sym_deref_expression, 2373), (sym_variable, 7599),
     (sym_var_access, 2373), (sym_in_out_decls, 3160), (sym_var_decls, 3160),
     (sym_retain_var_decls, 3160), (sym_temp_var_decls, 3160), (sym_external_var_decls, 3160),
     (sym_global_var_decls, 2947), (sym_loc_partly_var_decl, 3160), (sym__fb_variables, 767),
     (sym_fb_input_decls, 3160), (sym_fb_output_decls, 3160), (sym_no_retain_var_decls, 3160),
     (sym_fb_body, 8705), (sym_method_decl, 768), (sym_prog_access_decls, 3043), (sym_SFC, 7970),
     (sym_SFC_network, 7612), (sym_initial_step, 7439), (sym_config_init, 3047),
     (sym_using_directive, 2991), (sym_variable_access, 7530), (sym_func_call, 2961),
     (sym_stmt_list, 7970), (sym__stmt, 2024), (sym_assign, 3150), (sym_if_stmt, 3150),
     (sym_case_stmt, 3150), (sym_for_stmt, 3150), (sym_while_stmt, 3150), (sym_repeat_stmt, 3150),
     (sym_raise_stmt, 3150), (sym_try_stmt, 3150), (sym_ERR_clause_outside_try, 3150),
     (sym_begin_path_expression, 2943), (sym_invocation, 2934), (sym_any_invocation, 2935),
     (sym_this_invocation, 2641), (sym_super_invocation, 2641), (sym_super_body_invocation, 2935),
     (sym_path_expression, 2627), (sym_field_expression, 2373), (sym_index_expression, 2373),
     (sym_ladder_diagram, 7970), (sym_fb_diagram, 7970),
     (aux_sym_ERR_fb_variables_after_method_repeat1, 767), (aux_sym_func_decl_repeat1, 7194),
     (aux_sym_func_decl_repeat2, 2991), (aux_sym_fb_decl_repeat3, 768), (aux_sym_SFC_repeat1, 7612),
     (aux_sym_stmt_list_repeat1, 2024), (aux_sym_ladder_diagram_repeat1, 8009),
     (aux_sym_fb_diagram_repeat1, 8013), (sym_identifier, 298),
     (aux_sym_ERR_unexpected_this_in_path_token1, 304),
     (aux_sym_ERR_unexpected_super_in_path_token1, 306), (sym_line_comment, 3),
     (anon_sym_LBRACE, 308), (aux_sym_test_pragma_token1, 9), (aux_sym_once_pragma_token1, 11),
     (aux_sym_must_call_pragma_token1, 13), (aux_sym_export_pragma_token1, 15),
     (anon_sym_SEMI, 310), (anon_sym_PERCENT, 312), (aux_sym_input_decls_token1, 314),
     (aux_sym_output_decls_token1, 316), (aux_sym_in_out_decls_token1, 318),
     (aux_sym_var_decls_token1, 320), (aux_sym_temp_var_decls_token1, 322),
     (aux_sym_external_var_decls_token1, 324), (aux_sym_global_var_decls_token1, 326),
     (aux_sym_fb_decl_token4, 836), (aux_sym_method_decl_token1, 330),
     (aux_sym_prog_access_decls_token1, 332), (aux_sym_initial_step_token1, 334),
     (aux_sym_config_init_token1, 336), (aux_sym_using_directive_token1, 338),
     (aux_sym__stmt_token1, 340), (aux_sym__stmt_token2, 340), (aux_sym__stmt_token3, 340),
     (aux_sym_if_stmt_token1, 342), (aux_sym_case_stmt_token1, 344), (aux_sym_for_stmt_token1, 346),
     (aux_sym_while_stmt_token1, 348), (aux_sym_repeat_stmt_token1, 350),
     (aux_sym_raise_stmt_token1, 352), (aux_sym_try_stmt_token1, 354),
     (aux_sym_try_stmt_token2, 356), (aux_sym_catch_clause_token1, 356),
     (aux_sym_finally_clause_token1, 356), (sym_ld_rung, 358), (sym_fbd_network, 360),
     (sym_c_style_comment, 3), (sym_pascal_style_comment, 3), (sym_pragma, 3)]"

lemma ts_parse_row_253_scan: "row_scan tokens_63_2 0 ts_parse_row_253 = Some (Suc (Suc (Suc (Suc 0))))"
  unfolding ts_parse_row_253_def by simp

text \<open>Lines 83758 to 83873.\<close>

definition ts_parse_row_254 :: parse_row where
  "ts_parse_row_254 =
    [(sym_ERR_assign_func_call, 7530), (sym_ERR_unexpected_this_in_path, 2372),
     (sym_ERR_unexpected_super_in_path, 2372), (sym_ERR_fb_variables_after_method, 1531),
     (sym_ERR_var_access_not_allowed, 3160), (sym_ERR_var_config_not_allowed, 3160),
     (sym_ERR_var_global_not_allowed, 3160), (sym_ERR_method_decl_in_body, 3150),
     (sym_extern_pragma, 7490), (sym_wasm_pragma, 3150), (sym_warn_pragma, 7490),
     (sym_allow_pragma, 3140), (sym_test_pragma, 7490), (sym_once_pragma, 7490),
     (sym_must_call_pragma, 7490), (sym_export_pragma, 7490), (sym_pou_pragma, 7194),
     (sym_direct_variable, 7675), (sym_deref_expression, 2373), (sym_variable, 7599),
     (sym_var_access, 2373), (sym_in_out_decls, 3160), (sym_var_decls, 3160),
     (sym_retain_var_decls, 3160), (sym_temp_var_decls, 3160), (sym_external_var_decls, 3160),
     (sym_global_var_decls, 2947), (sym_loc_partly_var_decl, 3160), (sym__fb_variables, 639),
     (sym_fb_input_decls, 3160), (sym_fb_output_decls, 3160), (sym_no_retain_var_decls, 3160),
     (sym_fb_body, 10413), (sym_method_decl, 676), (sym_prog_access_decls, 3043), (sym_SFC, 7970),
     (sym_SFC_network, 7612), (sym_initial_step, 7439), (sym_config_init, 3047),
     (sym_using_directive, 2991), (sym_variable_access, 7530), (sym_func_call, 2961),
     (sym_stmt_list, 7970), (sym__stmt, 2024), (sym_assign, 3150), (sym_if_stmt, 3150),
     (sym_case_stmt, 3150), (sym_for_stmt, 3150), (sym_while_stmt, 3150), (sym_repeat_stmt, 3150),
     (sym_raise_stmt, 3150), (sym_try_stmt, 3150), (sym_ERR_clause_outside_try, 3150),
     (sym_begin_path_expression, 2943), (sym_invocation, 2934), (sym_any_invocation, 2935),
     (sym_this_invocation, 2641), (sym_super_invocation, 2641), (sym_super_body_invocation, 2935),
     (sym_path_expression, 2627), (sym_field_expression, 2373), (sym_index_expression, 2373),
     (sym_ladder_diagram, 7970), (sym_fb_diagram, 7970),
     (aux_sym_ERR_fb_variables_after_method_repeat1, 639), (aux_sym_func_decl_repeat1, 7194),
     (aux_sym_func_decl_repeat2, 2991), (aux_sym_fb_decl_repeat3, 676), (aux_sym_SFC_repeat1, 7612),
     (aux_sym_stmt_list_repeat1, 2024), (aux_sym_ladder_diagram_repeat1, 8009),
     (aux_sym_fb_diagram_repeat1, 8013), (sym_identifier, 298),
     (aux_sym_ERR_unexpected_this_in_path_token1, 304),
     (aux_sym_ERR_unexpected_super_in_path_token1, 306), (sym_line_comment, 3),
     (anon_sym_LBRACE, 308), (aux_sym_test_pragma_token1, 9), (aux_sym_once_pragma_token1, 11),
     (aux_sym_must_call_pragma_token1, 13), (aux_sym_export_pragma_token1, 15),
     (anon_sym_SEMI, 310), (anon_sym_PERCENT, 312), (aux_sym_input_decls_token1, 314),
     (aux_sym_output_decls_token1, 316), (aux_sym_in_out_decls_token1, 318),
     (aux_sym_var_decls_token1, 320), (aux_sym_temp_var_decls_token1, 322),
     (aux_sym_external_var_decls_token1, 324), (aux_sym_global_var_decls_token1, 326),
     (aux_sym_fb_decl_token4, 838), (aux_sym_method_decl_token1, 330),
     (aux_sym_prog_access_decls_token1, 332), (aux_sym_initial_step_token1, 334),
     (aux_sym_config_init_token1, 336), (aux_sym_using_directive_token1, 338),
     (aux_sym__stmt_token1, 340), (aux_sym__stmt_token2, 340), (aux_sym__stmt_token3, 340),
     (aux_sym_if_stmt_token1, 342), (aux_sym_case_stmt_token1, 344), (aux_sym_for_stmt_token1, 346),
     (aux_sym_while_stmt_token1, 348), (aux_sym_repeat_stmt_token1, 350),
     (aux_sym_raise_stmt_token1, 352), (aux_sym_try_stmt_token1, 354),
     (aux_sym_try_stmt_token2, 356), (aux_sym_catch_clause_token1, 356),
     (aux_sym_finally_clause_token1, 356), (sym_ld_rung, 358), (sym_fbd_network, 360),
     (sym_c_style_comment, 3), (sym_pascal_style_comment, 3), (sym_pragma, 3)]"

lemma ts_parse_row_254_scan: "row_scan tokens_63_2 0 ts_parse_row_254 = Some (Suc (Suc (Suc (Suc 0))))"
  unfolding ts_parse_row_254_def by simp

text \<open>Lines 83874 to 83989.\<close>

definition ts_parse_row_255 :: parse_row where
  "ts_parse_row_255 =
    [(sym_ERR_assign_func_call, 7530), (sym_ERR_unexpected_this_in_path, 2372),
     (sym_ERR_unexpected_super_in_path, 2372), (sym_ERR_fb_variables_after_method, 1656),
     (sym_ERR_var_access_not_allowed, 3160), (sym_ERR_var_config_not_allowed, 3160),
     (sym_ERR_var_global_not_allowed, 3160), (sym_ERR_method_decl_in_body, 3150),
     (sym_extern_pragma, 7490), (sym_wasm_pragma, 3150), (sym_warn_pragma, 7490),
     (sym_allow_pragma, 3140), (sym_test_pragma, 7490), (sym_once_pragma, 7490),
     (sym_must_call_pragma, 7490), (sym_export_pragma, 7490), (sym_pou_pragma, 7194),
     (sym_direct_variable, 7675), (sym_deref_expression, 2373), (sym_variable, 7599),
     (sym_var_access, 2373), (sym_in_out_decls, 3160), (sym_var_decls, 3160),
     (sym_retain_var_decls, 3160), (sym_temp_var_decls, 3160), (sym_external_var_decls, 3160),
     (sym_global_var_decls, 2947), (sym_loc_partly_var_decl, 3160), (sym__fb_variables, 775),
     (sym_fb_input_decls, 3160), (sym_fb_output_decls, 3160), (sym_no_retain_var_decls, 3160),
     (sym_fb_body, 8703), (sym_method_decl, 776), (sym_prog_access_decls, 3043), (sym_SFC, 7970),
     (sym_SFC_network, 7612), (sym_initial_step, 7439), (sym_config_init, 3047),
     (sym_using_directive, 2991), (sym_variable_access, 7530), (sym_func_call, 2961),
     (sym_stmt_list, 7970), (sym__stmt, 2024), (sym_assign, 3150), (sym_if_stmt, 3150),
     (sym_case_stmt, 3150), (sym_for_stmt, 3150), (sym_while_stmt, 3150), (sym_repeat_stmt, 3150),
     (sym_raise_stmt, 3150), (sym_try_stmt, 3150), (sym_ERR_clause_outside_try, 3150),
     (sym_begin_path_expression, 2943), (sym_invocation, 2934), (sym_any_invocation, 2935),
     (sym_this_invocation, 2641), (sym_super_invocation, 2641), (sym_super_body_invocation, 2935),
     (sym_path_expression, 2627), (sym_field_expression, 2373), (sym_index_expression, 2373),
     (sym_ladder_diagram, 7970), (sym_fb_diagram, 7970),
     (aux_sym_ERR_fb_variables_after_method_repeat1, 775), (aux_sym_func_decl_repeat1, 7194),
     (aux_sym_func_decl_repeat2, 2991), (aux_sym_fb_decl_repeat3, 776), (aux_sym_SFC_repeat1, 7612),
     (aux_sym_stmt_list_repeat1, 2024), (aux_sym_ladder_diagram_repeat1, 8009),
     (aux_sym_fb_diagram_repeat1, 8013), (sym_identifier, 298),
     (aux_sym_ERR_unexpected_this_in_path_token1, 304),
     (aux_sym_ERR_unexpected_super_in_path_token1, 306), (sym_line_comment, 3),
     (anon_sym_LBRACE, 308), (aux_sym_test_pragma_token1, 9), (aux_sym_once_pragma_token1, 11),
     (aux_sym_must_call_pragma_token1, 13), (aux_sym_export_pragma_token1, 15),
     (anon_sym_SEMI, 310), (anon_sym_PERCENT, 312), (aux_sym_input_decls_token1, 314),
     (aux_sym_output_decls_token1, 316), (aux_sym_in_out_decls_token1, 318),
     (aux_sym_var_decls_token1, 320), (aux_sym_temp_var_decls_token1, 322),
     (aux_sym_external_var_decls_token1, 324), (aux_sym_global_var_decls_token1, 326),
     (aux_sym_fb_decl_token4, 840), (aux_sym_method_decl_token1, 330),
     (aux_sym_prog_access_decls_token1, 332), (aux_sym_initial_step_token1, 334),
     (aux_sym_config_init_token1, 336), (aux_sym_using_directive_token1, 338),
     (aux_sym__stmt_token1, 340), (aux_sym__stmt_token2, 340), (aux_sym__stmt_token3, 340),
     (aux_sym_if_stmt_token1, 342), (aux_sym_case_stmt_token1, 344), (aux_sym_for_stmt_token1, 346),
     (aux_sym_while_stmt_token1, 348), (aux_sym_repeat_stmt_token1, 350),
     (aux_sym_raise_stmt_token1, 352), (aux_sym_try_stmt_token1, 354),
     (aux_sym_try_stmt_token2, 356), (aux_sym_catch_clause_token1, 356),
     (aux_sym_finally_clause_token1, 356), (sym_ld_rung, 358), (sym_fbd_network, 360),
     (sym_c_style_comment, 3), (sym_pascal_style_comment, 3), (sym_pragma, 3)]"

lemma ts_parse_row_255_scan: "row_scan tokens_63_2 0 ts_parse_row_255 = Some (Suc (Suc (Suc (Suc 0))))"
  unfolding ts_parse_row_255_def by simp

text \<open>Lines 83990 to 84105.\<close>

definition ts_parse_row_256 :: parse_row where
  "ts_parse_row_256 =
    [(sym_ERR_assign_func_call, 7530), (sym_ERR_unexpected_this_in_path, 2372),
     (sym_ERR_unexpected_super_in_path, 2372), (sym_ERR_fb_variables_after_method, 1243),
     (sym_ERR_var_access_not_allowed, 3160), (sym_ERR_var_config_not_allowed, 3160),
     (sym_ERR_var_global_not_allowed, 3160), (sym_ERR_method_decl_in_body, 3150),
     (sym_extern_pragma, 7490), (sym_wasm_pragma, 3150), (sym_warn_pragma, 7490),
     (sym_allow_pragma, 3140), (sym_test_pragma, 7490), (sym_once_pragma, 7490),
     (sym_must_call_pragma, 7490), (sym_export_pragma, 7490), (sym_pou_pragma, 7194),
     (sym_direct_variable, 7675), (sym_deref_expression, 2373), (sym_variable, 7599),
     (sym_var_access, 2373), (sym_in_out_decls, 3160), (sym_var_decls, 3160),
     (sym_retain_var_decls, 3160), (sym_temp_var_decls, 3160), (sym_external_var_decls, 3160),
     (sym_global_var_decls, 2947), (sym_loc_partly_var_decl, 3160), (sym__fb_variables, 518),
     (sym_fb_input_decls, 3160), (sym_fb_output_decls, 3160), (sym_no_retain_var_decls, 3160),
     (sym_fb_body, 8733), (sym_method_decl, 519), (sym_prog_access_decls, 3043), (sym_SFC, 7970),
     (sym_SFC_network, 7612), (sym_initial_step, 7439), (sym_config_init, 3047),
     (sym_using_directive, 2991), (sym_variable_access, 7530), (sym_func_call, 2961),
     (sym_stmt_list, 7970), (sym__stmt, 2024), (sym_assign, 3150), (sym_if_stmt, 3150),
     (sym_case_stmt, 3150), (sym_for_stmt, 3150), (sym_while_stmt, 3150), (sym_repeat_stmt, 3150),
     (sym_raise_stmt, 3150), (sym_try_stmt, 3150), (sym_ERR_clause_outside_try, 3150),
     (sym_begin_path_expression, 2943), (sym_invocation, 2934), (sym_any_invocation, 2935),
     (sym_this_invocation, 2641), (sym_super_invocation, 2641), (sym_super_body_invocation, 2935),
     (sym_path_expression, 2627), (sym_field_expression, 2373), (sym_index_expression, 2373),
     (sym_ladder_diagram, 7970), (sym_fb_diagram, 7970),
     (aux_sym_ERR_fb_variables_after_method_repeat1, 518), (aux_sym_func_decl_repeat1, 7194),
     (aux_sym_func_decl_repeat2, 2991), (aux_sym_fb_decl_repeat3, 519), (aux_sym_SFC_repeat1, 7612),
     (aux_sym_stmt_list_repeat1, 2024), (aux_sym_ladder_diagram_repeat1, 8009),
     (aux_sym_fb_diagram_repeat1, 8013), (sym_identifier, 298),
     (aux_sym_ERR_unexpected_this_in_path_token1, 304),
     (aux_sym_ERR_unexpected_super_in_path_token1, 306), (sym_line_comment, 3),
     (anon_sym_LBRACE, 308), (aux_sym_test_pragma_token1, 9), (aux_sym_once_pragma_token1, 11),
     (aux_sym_must_call_pragma_token1, 13), (aux_sym_export_pragma_token1, 15),
     (anon_sym_SEMI, 310), (anon_sym_PERCENT, 312), (aux_sym_input_decls_token1, 314),
     (aux_sym_output_decls_token1, 316), (aux_sym_in_out_decls_token1, 318),
     (aux_sym_var_decls_token1, 320), (aux_sym_temp_var_decls_token1, 322),
     (aux_sym_external_var_decls_token1, 324), (aux_sym_global_var_decls_token1, 326),
     (aux_sym_fb_decl_token4, 842), (aux_sym_method_decl_token1, 330),
     (aux_sym_prog_access_decls_token1, 332), (aux_sym_initial_step_token1, 334),
     (aux_sym_config_init_token1, 336), (aux_sym_using_directive_token1, 338),
     (aux_sym__stmt_token1, 340), (aux_sym__stmt_token2, 340), (aux_sym__stmt_token3, 340),
     (aux_sym_if_stmt_token1, 342), (aux_sym_case_stmt_token1, 344), (aux_sym_for_stmt_token1, 346),
     (aux_sym_while_stmt_token1, 348), (aux_sym_repeat_stmt_token1, 350),
     (aux_sym_raise_stmt_token1, 352), (aux_sym_try_stmt_token1, 354),
     (aux_sym_try_stmt_token2, 356), (aux_sym_catch_clause_token1, 356),
     (aux_sym_finally_clause_token1, 356), (sym_ld_rung, 358), (sym_fbd_network, 360),
     (sym_c_style_comment, 3), (sym_pascal_style_comment, 3), (sym_pragma, 3)]"

lemma ts_parse_row_256_scan: "row_scan tokens_63_2 0 ts_parse_row_256 = Some (Suc (Suc (Suc (Suc 0))))"
  unfolding ts_parse_row_256_def by simp

text \<open>Lines 84106 to 84221.\<close>

definition ts_parse_row_257 :: parse_row where
  "ts_parse_row_257 =
    [(sym_ERR_assign_func_call, 7530), (sym_ERR_unexpected_this_in_path, 2372),
     (sym_ERR_unexpected_super_in_path, 2372), (sym_ERR_fb_variables_after_method, 1350),
     (sym_ERR_var_access_not_allowed, 3160), (sym_ERR_var_config_not_allowed, 3160),
     (sym_ERR_var_global_not_allowed, 3160), (sym_ERR_method_decl_in_body, 3150),
     (sym_extern_pragma, 7490), (sym_wasm_pragma, 3150), (sym_warn_pragma, 7490),
     (sym_allow_pragma, 3140), (sym_test_pragma, 7490), (sym_once_pragma, 7490),
     (sym_must_call_pragma, 7490), (sym_export_pragma, 7490), (sym_pou_pragma, 7194),
     (sym_direct_variable, 7675), (sym_deref_expression, 2373), (sym_variable, 7599),
     (sym_var_access, 2373), (sym_in_out_decls, 3160), (sym_var_decls, 3160),
     (sym_retain_var_decls, 3160), (sym_temp_var_decls, 3160), (sym_external_var_decls, 3160),
     (sym_global_var_decls, 2947), (sym_loc_partly_var_decl, 3160), (sym__fb_variables, 597),
     (sym_fb_input_decls, 3160), (sym_fb_output_decls, 3160), (sym_no_retain_var_decls, 3160),
     (sym_fb_body, 10528), (sym_method_decl, 598), (sym_prog_access_decls, 3043), (sym_SFC, 7970),
     (sym_SFC_network, 7612), (sym_initial_step, 7439), (sym_config_init, 3047),
     (sym_using_directive, 2991), (sym_variable_access, 7530), (sym_func_call, 2961),
     (sym_stmt_list, 7970), (sym__stmt, 2024), (sym_assign, 3150), (sym_if_stmt, 3150),
     (sym_case_stmt, 3150), (sym_for_stmt, 3150), (sym_while_stmt, 3150), (sym_repeat_stmt, 3150),
     (sym_raise_stmt, 3150), (sym_try_stmt, 3150), (sym_ERR_clause_outside_try, 3150),
     (sym_begin_path_expression, 2943), (sym_invocation, 2934), (sym_any_invocation, 2935),
     (sym_this_invocation, 2641), (sym_super_invocation, 2641), (sym_super_body_invocation, 2935),
     (sym_path_expression, 2627), (sym_field_expression, 2373), (sym_index_expression, 2373),
     (sym_ladder_diagram, 7970), (sym_fb_diagram, 7970),
     (aux_sym_ERR_fb_variables_after_method_repeat1, 597), (aux_sym_func_decl_repeat1, 7194),
     (aux_sym_func_decl_repeat2, 2991), (aux_sym_fb_decl_repeat3, 598), (aux_sym_SFC_repeat1, 7612),
     (aux_sym_stmt_list_repeat1, 2024), (aux_sym_ladder_diagram_repeat1, 8009),
     (aux_sym_fb_diagram_repeat1, 8013), (sym_identifier, 298),
     (aux_sym_ERR_unexpected_this_in_path_token1, 304),
     (aux_sym_ERR_unexpected_super_in_path_token1, 306), (sym_line_comment, 3),
     (anon_sym_LBRACE, 308), (aux_sym_test_pragma_token1, 9), (aux_sym_once_pragma_token1, 11),
     (aux_sym_must_call_pragma_token1, 13), (aux_sym_export_pragma_token1, 15),
     (anon_sym_SEMI, 310), (anon_sym_PERCENT, 312), (aux_sym_input_decls_token1, 314),
     (aux_sym_output_decls_token1, 316), (aux_sym_in_out_decls_token1, 318),
     (aux_sym_var_decls_token1, 320), (aux_sym_temp_var_decls_token1, 322),
     (aux_sym_external_var_decls_token1, 324), (aux_sym_global_var_decls_token1, 326),
     (aux_sym_fb_decl_token4, 844), (aux_sym_method_decl_token1, 330),
     (aux_sym_prog_access_decls_token1, 332), (aux_sym_initial_step_token1, 334),
     (aux_sym_config_init_token1, 336), (aux_sym_using_directive_token1, 338),
     (aux_sym__stmt_token1, 340), (aux_sym__stmt_token2, 340), (aux_sym__stmt_token3, 340),
     (aux_sym_if_stmt_token1, 342), (aux_sym_case_stmt_token1, 344), (aux_sym_for_stmt_token1, 346),
     (aux_sym_while_stmt_token1, 348), (aux_sym_repeat_stmt_token1, 350),
     (aux_sym_raise_stmt_token1, 352), (aux_sym_try_stmt_token1, 354),
     (aux_sym_try_stmt_token2, 356), (aux_sym_catch_clause_token1, 356),
     (aux_sym_finally_clause_token1, 356), (sym_ld_rung, 358), (sym_fbd_network, 360),
     (sym_c_style_comment, 3), (sym_pascal_style_comment, 3), (sym_pragma, 3)]"

lemma ts_parse_row_257_scan: "row_scan tokens_63_2 0 ts_parse_row_257 = Some (Suc (Suc (Suc (Suc 0))))"
  unfolding ts_parse_row_257_def by simp

text \<open>Lines 84222 to 84337.\<close>

definition ts_parse_row_258 :: parse_row where
  "ts_parse_row_258 =
    [(sym_ERR_assign_func_call, 7530), (sym_ERR_unexpected_this_in_path, 2372),
     (sym_ERR_unexpected_super_in_path, 2372), (sym_ERR_fb_variables_after_method, 1937),
     (sym_ERR_var_access_not_allowed, 3160), (sym_ERR_var_config_not_allowed, 3160),
     (sym_ERR_var_global_not_allowed, 3160), (sym_ERR_method_decl_in_body, 3150),
     (sym_extern_pragma, 7490), (sym_wasm_pragma, 3150), (sym_warn_pragma, 7490),
     (sym_allow_pragma, 3140), (sym_test_pragma, 7490), (sym_once_pragma, 7490),
     (sym_must_call_pragma, 7490), (sym_export_pragma, 7490), (sym_pou_pragma, 7194),
     (sym_direct_variable, 7675), (sym_deref_expression, 2373), (sym_variable, 7599),
     (sym_var_access, 2373), (sym_in_out_decls, 3160), (sym_var_decls, 3160),
     (sym_retain_var_decls, 3160), (sym_temp_var_decls, 3160), (sym_external_var_decls, 3160),
     (sym_global_var_decls, 2947), (sym_loc_partly_var_decl, 3160), (sym__fb_variables, 463),
     (sym_fb_input_decls, 3160), (sym_fb_output_decls, 3160), (sym_no_retain_var_decls, 3160),
     (sym_fb_body, 9610), (sym_method_decl, 464), (sym_prog_access_decls, 3043), (sym_SFC, 7970),
     (sym_SFC_network, 7612), (sym_initial_step, 7439), (sym_config_init, 3047),
     (sym_using_directive, 2991), (sym_variable_access, 7530), (sym_func_call, 2961),
     (sym_stmt_list, 7970), (sym__stmt, 2024), (sym_assign, 3150), (sym_if_stmt, 3150),
     (sym_case_stmt, 3150), (sym_for_stmt, 3150), (sym_while_stmt, 3150), (sym_repeat_stmt, 3150),
     (sym_raise_stmt, 3150), (sym_try_stmt, 3150), (sym_ERR_clause_outside_try, 3150),
     (sym_begin_path_expression, 2943), (sym_invocation, 2934), (sym_any_invocation, 2935),
     (sym_this_invocation, 2641), (sym_super_invocation, 2641), (sym_super_body_invocation, 2935),
     (sym_path_expression, 2627), (sym_field_expression, 2373), (sym_index_expression, 2373),
     (sym_ladder_diagram, 7970), (sym_fb_diagram, 7970),
     (aux_sym_ERR_fb_variables_after_method_repeat1, 463), (aux_sym_func_decl_repeat1, 7194),
     (aux_sym_func_decl_repeat2, 2991), (aux_sym_fb_decl_repeat3, 464), (aux_sym_SFC_repeat1, 7612),
     (aux_sym_stmt_list_repeat1, 2024), (aux_sym_ladder_diagram_repeat1, 8009),
     (aux_sym_fb_diagram_repeat1, 8013), (sym_identifier, 298),
     (aux_sym_ERR_unexpected_this_in_path_token1, 304),
     (aux_sym_ERR_unexpected_super_in_path_token1, 306), (sym_line_comment, 3),
     (anon_sym_LBRACE, 308), (aux_sym_test_pragma_token1, 9), (aux_sym_once_pragma_token1, 11),
     (aux_sym_must_call_pragma_token1, 13), (aux_sym_export_pragma_token1, 15),
     (anon_sym_SEMI, 310), (anon_sym_PERCENT, 312), (aux_sym_input_decls_token1, 314),
     (aux_sym_output_decls_token1, 316), (aux_sym_in_out_decls_token1, 318),
     (aux_sym_var_decls_token1, 320), (aux_sym_temp_var_decls_token1, 322),
     (aux_sym_external_var_decls_token1, 324), (aux_sym_global_var_decls_token1, 326),
     (aux_sym_fb_decl_token4, 846), (aux_sym_method_decl_token1, 330),
     (aux_sym_prog_access_decls_token1, 332), (aux_sym_initial_step_token1, 334),
     (aux_sym_config_init_token1, 336), (aux_sym_using_directive_token1, 338),
     (aux_sym__stmt_token1, 340), (aux_sym__stmt_token2, 340), (aux_sym__stmt_token3, 340),
     (aux_sym_if_stmt_token1, 342), (aux_sym_case_stmt_token1, 344), (aux_sym_for_stmt_token1, 346),
     (aux_sym_while_stmt_token1, 348), (aux_sym_repeat_stmt_token1, 350),
     (aux_sym_raise_stmt_token1, 352), (aux_sym_try_stmt_token1, 354),
     (aux_sym_try_stmt_token2, 356), (aux_sym_catch_clause_token1, 356),
     (aux_sym_finally_clause_token1, 356), (sym_ld_rung, 358), (sym_fbd_network, 360),
     (sym_c_style_comment, 3), (sym_pascal_style_comment, 3), (sym_pragma, 3)]"

lemma ts_parse_row_258_scan: "row_scan tokens_63_2 0 ts_parse_row_258 = Some (Suc (Suc (Suc (Suc 0))))"
  unfolding ts_parse_row_258_def by simp

text \<open>Lines 84338 to 84453.\<close>

definition ts_parse_row_259 :: parse_row where
  "ts_parse_row_259 =
    [(sym_ERR_assign_func_call, 7530), (sym_ERR_unexpected_this_in_path, 2372),
     (sym_ERR_unexpected_super_in_path, 2372), (sym_ERR_fb_variables_after_method, 1678),
     (sym_ERR_var_access_not_allowed, 3160), (sym_ERR_var_config_not_allowed, 3160),
     (sym_ERR_var_global_not_allowed, 3160), (sym_ERR_method_decl_in_body, 3150),
     (sym_extern_pragma, 7490), (sym_wasm_pragma, 3150), (sym_warn_pragma, 7490),
     (sym_allow_pragma, 3140), (sym_test_pragma, 7490), (sym_once_pragma, 7490),
     (sym_must_call_pragma, 7490), (sym_export_pragma, 7490), (sym_pou_pragma, 7194),
     (sym_direct_variable, 7675), (sym_deref_expression, 2373), (sym_variable, 7599),
     (sym_var_access, 2373), (sym_in_out_decls, 3160), (sym_var_decls, 3160),
     (sym_retain_var_decls, 3160), (sym_temp_var_decls, 3160), (sym_external_var_decls, 3160),
     (sym_global_var_decls, 2947), (sym_loc_partly_var_decl, 3160), (sym__fb_variables, 790),
     (sym_fb_input_decls, 3160), (sym_fb_output_decls, 3160), (sym_no_retain_var_decls, 3160),
     (sym_fb_body, 9935), (sym_method_decl, 791), (sym_prog_access_decls, 3043), (sym_SFC, 7970),
     (sym_SFC_network, 7612), (sym_initial_step, 7439), (sym_config_init, 3047),
     (sym_using_directive, 2991), (sym_variable_access, 7530), (sym_func_call, 2961),
     (sym_stmt_list, 7970), (sym__stmt, 2024), (sym_assign, 3150), (sym_if_stmt, 3150),
     (sym_case_stmt, 3150), (sym_for_stmt, 3150), (sym_while_stmt, 3150), (sym_repeat_stmt, 3150),
     (sym_raise_stmt, 3150), (sym_try_stmt, 3150), (sym_ERR_clause_outside_try, 3150),
     (sym_begin_path_expression, 2943), (sym_invocation, 2934), (sym_any_invocation, 2935),
     (sym_this_invocation, 2641), (sym_super_invocation, 2641), (sym_super_body_invocation, 2935),
     (sym_path_expression, 2627), (sym_field_expression, 2373), (sym_index_expression, 2373),
     (sym_ladder_diagram, 7970), (sym_fb_diagram, 7970),
     (aux_sym_ERR_fb_variables_after_method_repeat1, 790), (aux_sym_func_decl_repeat1, 7194),
     (aux_sym_func_decl_repeat2, 2991), (aux_sym_fb_decl_repeat3, 791), (aux_sym_SFC_repeat1, 7612),
     (aux_sym_stmt_list_repeat1, 2024), (aux_sym_ladder_diagram_repeat1, 8009),
     (aux_sym_fb_diagram_repeat1, 8013), (sym_identifier, 298),
     (aux_sym_ERR_unexpected_this_in_path_token1, 304),
     (aux_sym_ERR_unexpected_super_in_path_token1, 306), (sym_line_comment, 3),
     (anon_sym_LBRACE, 308), (aux_sym_test_pragma_token1, 9), (aux_sym_once_pragma_token1, 11),
     (aux_sym_must_call_pragma_token1, 13), (aux_sym_export_pragma_token1, 15),
     (anon_sym_SEMI, 310), (anon_sym_PERCENT, 312), (aux_sym_input_decls_token1, 314),
     (aux_sym_output_decls_token1, 316), (aux_sym_in_out_decls_token1, 318),
     (aux_sym_var_decls_token1, 320), (aux_sym_temp_var_decls_token1, 322),
     (aux_sym_external_var_decls_token1, 324), (aux_sym_global_var_decls_token1, 326),
     (aux_sym_fb_decl_token4, 848), (aux_sym_method_decl_token1, 330),
     (aux_sym_prog_access_decls_token1, 332), (aux_sym_initial_step_token1, 334),
     (aux_sym_config_init_token1, 336), (aux_sym_using_directive_token1, 338),
     (aux_sym__stmt_token1, 340), (aux_sym__stmt_token2, 340), (aux_sym__stmt_token3, 340),
     (aux_sym_if_stmt_token1, 342), (aux_sym_case_stmt_token1, 344), (aux_sym_for_stmt_token1, 346),
     (aux_sym_while_stmt_token1, 348), (aux_sym_repeat_stmt_token1, 350),
     (aux_sym_raise_stmt_token1, 352), (aux_sym_try_stmt_token1, 354),
     (aux_sym_try_stmt_token2, 356), (aux_sym_catch_clause_token1, 356),
     (aux_sym_finally_clause_token1, 356), (sym_ld_rung, 358), (sym_fbd_network, 360),
     (sym_c_style_comment, 3), (sym_pascal_style_comment, 3), (sym_pragma, 3)]"

lemma ts_parse_row_259_scan: "row_scan tokens_63_2 0 ts_parse_row_259 = Some (Suc (Suc (Suc (Suc 0))))"
  unfolding ts_parse_row_259_def by simp

text \<open>Lines 84454 to 84569.\<close>

definition ts_parse_row_260 :: parse_row where
  "ts_parse_row_260 =
    [(sym_ERR_assign_func_call, 7530), (sym_ERR_unexpected_this_in_path, 2372),
     (sym_ERR_unexpected_super_in_path, 2372), (sym_ERR_fb_variables_after_method, 1692),
     (sym_ERR_var_access_not_allowed, 3160), (sym_ERR_var_config_not_allowed, 3160),
     (sym_ERR_var_global_not_allowed, 3160), (sym_ERR_method_decl_in_body, 3150),
     (sym_extern_pragma, 7490), (sym_wasm_pragma, 3150), (sym_warn_pragma, 7490),
     (sym_allow_pragma, 3140), (sym_test_pragma, 7490), (sym_once_pragma, 7490),
     (sym_must_call_pragma, 7490), (sym_export_pragma, 7490), (sym_pou_pragma, 7194),
     (sym_direct_variable, 7675), (sym_deref_expression, 2373), (sym_variable, 7599),
     (sym_var_access, 2373), (sym_in_out_decls, 3160), (sym_var_decls, 3160),
     (sym_retain_var_decls, 3160), (sym_temp_var_decls, 3160), (sym_external_var_decls, 3160),
     (sym_global_var_decls, 2947), (sym_loc_partly_var_decl, 3160), (sym__fb_variables, 795),
     (sym_fb_input_decls, 3160), (sym_fb_output_decls, 3160), (sym_no_retain_var_decls, 3160),
     (sym_fb_body, 8375), (sym_method_decl, 796), (sym_prog_access_decls, 3043), (sym_SFC, 7970),
     (sym_SFC_network, 7612), (sym_initial_step, 7439), (sym_config_init, 3047),
     (sym_using_directive, 2991), (sym_variable_access, 7530), (sym_func_call, 2961),
     (sym_stmt_list, 7970), (sym__stmt, 2024), (sym_assign, 3150), (sym_if_stmt, 3150),
     (sym_case_stmt, 3150), (sym_for_stmt, 3150), (sym_while_stmt, 3150), (sym_repeat_stmt, 3150),
     (sym_raise_stmt, 3150), (sym_try_stmt, 3150), (sym_ERR_clause_outside_try, 3150),
     (sym_begin_path_expression, 2943), (sym_invocation, 2934), (sym_any_invocation, 2935),
     (sym_this_invocation, 2641), (sym_super_invocation, 2641), (sym_super_body_invocation, 2935),
     (sym_path_expression, 2627), (sym_field_expression, 2373), (sym_index_expression, 2373),
     (sym_ladder_diagram, 7970), (sym_fb_diagram, 7970),
     (aux_sym_ERR_fb_variables_after_method_repeat1, 795), (aux_sym_func_decl_repeat1, 7194),
     (aux_sym_func_decl_repeat2, 2991), (aux_sym_fb_decl_repeat3, 796), (aux_sym_SFC_repeat1, 7612),
     (aux_sym_stmt_list_repeat1, 2024), (aux_sym_ladder_diagram_repeat1, 8009),
     (aux_sym_fb_diagram_repeat1, 8013), (sym_identifier, 298),
     (aux_sym_ERR_unexpected_this_in_path_token1, 304),
     (aux_sym_ERR_unexpected_super_in_path_token1, 306), (sym_line_comment, 3),
     (anon_sym_LBRACE, 308), (aux_sym_test_pragma_token1, 9), (aux_sym_once_pragma_token1, 11),
     (aux_sym_must_call_pragma_token1, 13), (aux_sym_export_pragma_token1, 15),
     (anon_sym_SEMI, 310), (anon_sym_PERCENT, 312), (aux_sym_input_decls_token1, 314),
     (aux_sym_output_decls_token1, 316), (aux_sym_in_out_decls_token1, 318),
     (aux_sym_var_decls_token1, 320), (aux_sym_temp_var_decls_token1, 322),
     (aux_sym_external_var_decls_token1, 324), (aux_sym_global_var_decls_token1, 326),
     (aux_sym_fb_decl_token4, 850), (aux_sym_method_decl_token1, 330),
     (aux_sym_prog_access_decls_token1, 332), (aux_sym_initial_step_token1, 334),
     (aux_sym_config_init_token1, 336), (aux_sym_using_directive_token1, 338),
     (aux_sym__stmt_token1, 340), (aux_sym__stmt_token2, 340), (aux_sym__stmt_token3, 340),
     (aux_sym_if_stmt_token1, 342), (aux_sym_case_stmt_token1, 344), (aux_sym_for_stmt_token1, 346),
     (aux_sym_while_stmt_token1, 348), (aux_sym_repeat_stmt_token1, 350),
     (aux_sym_raise_stmt_token1, 352), (aux_sym_try_stmt_token1, 354),
     (aux_sym_try_stmt_token2, 356), (aux_sym_catch_clause_token1, 356),
     (aux_sym_finally_clause_token1, 356), (sym_ld_rung, 358), (sym_fbd_network, 360),
     (sym_c_style_comment, 3), (sym_pascal_style_comment, 3), (sym_pragma, 3)]"

lemma ts_parse_row_260_scan: "row_scan tokens_63_2 0 ts_parse_row_260 = Some (Suc (Suc (Suc (Suc 0))))"
  unfolding ts_parse_row_260_def by simp

text \<open>Lines 84570 to 84685.\<close>

definition ts_parse_row_261 :: parse_row where
  "ts_parse_row_261 =
    [(sym_ERR_assign_func_call, 7530), (sym_ERR_unexpected_this_in_path, 2372),
     (sym_ERR_unexpected_super_in_path, 2372), (sym_ERR_fb_variables_after_method, 1702),
     (sym_ERR_var_access_not_allowed, 3160), (sym_ERR_var_config_not_allowed, 3160),
     (sym_ERR_var_global_not_allowed, 3160), (sym_ERR_method_decl_in_body, 3150),
     (sym_extern_pragma, 7490), (sym_wasm_pragma, 3150), (sym_warn_pragma, 7490),
     (sym_allow_pragma, 3140), (sym_test_pragma, 7490), (sym_once_pragma, 7490),
     (sym_must_call_pragma, 7490), (sym_export_pragma, 7490), (sym_pou_pragma, 7194),
     (sym_direct_variable, 7675), (sym_deref_expression, 2373), (sym_variable, 7599),
     (sym_var_access, 2373), (sym_in_out_decls, 3160), (sym_var_decls, 3160),
     (sym_retain_var_decls, 3160), (sym_temp_var_decls, 3160), (sym_external_var_decls, 3160),
     (sym_global_var_decls, 2947), (sym_loc_partly_var_decl, 3160), (sym__fb_variables, 799),
     (sym_fb_input_decls, 3160), (sym_fb_output_decls, 3160), (sym_no_retain_var_decls, 3160),
     (sym_fb_body, 8682), (sym_method_decl, 800), (sym_prog_access_decls, 3043), (sym_SFC, 7970),
     (sym_SFC_network, 7612), (sym_initial_step, 7439), (sym_config_init, 3047),
     (sym_using_directive, 2991), (sym_variable_access, 7530), (sym_func_call, 2961),
     (sym_stmt_list, 7970), (sym__stmt, 2024), (sym_assign, 3150), (sym_if_stmt, 3150),
     (sym_case_stmt, 3150), (sym_for_stmt, 3150), (sym_while_stmt, 3150), (sym_repeat_stmt, 3150),
     (sym_raise_stmt, 3150), (sym_try_stmt, 3150), (sym_ERR_clause_outside_try, 3150),
     (sym_begin_path_expression, 2943), (sym_invocation, 2934), (sym_any_invocation, 2935),
     (sym_this_invocation, 2641), (sym_super_invocation, 2641), (sym_super_body_invocation, 2935),
     (sym_path_expression, 2627), (sym_field_expression, 2373), (sym_index_expression, 2373),
     (sym_ladder_diagram, 7970), (sym_fb_diagram, 7970),
     (aux_sym_ERR_fb_variables_after_method_repeat1, 799), (aux_sym_func_decl_repeat1, 7194),
     (aux_sym_func_decl_repeat2, 2991), (aux_sym_fb_decl_repeat3, 800), (aux_sym_SFC_repeat1, 7612),
     (aux_sym_stmt_list_repeat1, 2024), (aux_sym_ladder_diagram_repeat1, 8009),
     (aux_sym_fb_diagram_repeat1, 8013), (sym_identifier, 298),
     (aux_sym_ERR_unexpected_this_in_path_token1, 304),
     (aux_sym_ERR_unexpected_super_in_path_token1, 306), (sym_line_comment, 3),
     (anon_sym_LBRACE, 308), (aux_sym_test_pragma_token1, 9), (aux_sym_once_pragma_token1, 11),
     (aux_sym_must_call_pragma_token1, 13), (aux_sym_export_pragma_token1, 15),
     (anon_sym_SEMI, 310), (anon_sym_PERCENT, 312), (aux_sym_input_decls_token1, 314),
     (aux_sym_output_decls_token1, 316), (aux_sym_in_out_decls_token1, 318),
     (aux_sym_var_decls_token1, 320), (aux_sym_temp_var_decls_token1, 322),
     (aux_sym_external_var_decls_token1, 324), (aux_sym_global_var_decls_token1, 326),
     (aux_sym_fb_decl_token4, 852), (aux_sym_method_decl_token1, 330),
     (aux_sym_prog_access_decls_token1, 332), (aux_sym_initial_step_token1, 334),
     (aux_sym_config_init_token1, 336), (aux_sym_using_directive_token1, 338),
     (aux_sym__stmt_token1, 340), (aux_sym__stmt_token2, 340), (aux_sym__stmt_token3, 340),
     (aux_sym_if_stmt_token1, 342), (aux_sym_case_stmt_token1, 344), (aux_sym_for_stmt_token1, 346),
     (aux_sym_while_stmt_token1, 348), (aux_sym_repeat_stmt_token1, 350),
     (aux_sym_raise_stmt_token1, 352), (aux_sym_try_stmt_token1, 354),
     (aux_sym_try_stmt_token2, 356), (aux_sym_catch_clause_token1, 356),
     (aux_sym_finally_clause_token1, 356), (sym_ld_rung, 358), (sym_fbd_network, 360),
     (sym_c_style_comment, 3), (sym_pascal_style_comment, 3), (sym_pragma, 3)]"

lemma ts_parse_row_261_scan: "row_scan tokens_63_2 0 ts_parse_row_261 = Some (Suc (Suc (Suc (Suc 0))))"
  unfolding ts_parse_row_261_def by simp

text \<open>Lines 84686 to 84801.\<close>

definition ts_parse_row_262 :: parse_row where
  "ts_parse_row_262 =
    [(sym_ERR_assign_func_call, 7530), (sym_ERR_unexpected_this_in_path, 2372),
     (sym_ERR_unexpected_super_in_path, 2372), (sym_ERR_fb_variables_after_method, 1707),
     (sym_ERR_var_access_not_allowed, 3160), (sym_ERR_var_config_not_allowed, 3160),
     (sym_ERR_var_global_not_allowed, 3160), (sym_ERR_method_decl_in_body, 3150),
     (sym_extern_pragma, 7490), (sym_wasm_pragma, 3150), (sym_warn_pragma, 7490),
     (sym_allow_pragma, 3140), (sym_test_pragma, 7490), (sym_once_pragma, 7490),
     (sym_must_call_pragma, 7490), (sym_export_pragma, 7490), (sym_pou_pragma, 7194),
     (sym_direct_variable, 7675), (sym_deref_expression, 2373), (sym_variable, 7599),
     (sym_var_access, 2373), (sym_in_out_decls, 3160), (sym_var_decls, 3160),
     (sym_retain_var_decls, 3160), (sym_temp_var_decls, 3160), (sym_external_var_decls, 3160),
     (sym_global_var_decls, 2947), (sym_loc_partly_var_decl, 3160), (sym__fb_variables, 802),
     (sym_fb_input_decls, 3160), (sym_fb_output_decls, 3160), (sym_no_retain_var_decls, 3160),
     (sym_fb_body, 8770), (sym_method_decl, 803), (sym_prog_access_decls, 3043), (sym_SFC, 7970),
     (sym_SFC_network, 7612), (sym_initial_step, 7439), (sym_config_init, 3047),
     (sym_using_directive, 2991), (sym_variable_access, 7530), (sym_func_call, 2961),
     (sym_stmt_list, 7970), (sym__stmt, 2024), (sym_assign, 3150), (sym_if_stmt, 3150),
     (sym_case_stmt, 3150), (sym_for_stmt, 3150), (sym_while_stmt, 3150), (sym_repeat_stmt, 3150),
     (sym_raise_stmt, 3150), (sym_try_stmt, 3150), (sym_ERR_clause_outside_try, 3150),
     (sym_begin_path_expression, 2943), (sym_invocation, 2934), (sym_any_invocation, 2935),
     (sym_this_invocation, 2641), (sym_super_invocation, 2641), (sym_super_body_invocation, 2935),
     (sym_path_expression, 2627), (sym_field_expression, 2373), (sym_index_expression, 2373),
     (sym_ladder_diagram, 7970), (sym_fb_diagram, 7970),
     (aux_sym_ERR_fb_variables_after_method_repeat1, 802), (aux_sym_func_decl_repeat1, 7194),
     (aux_sym_func_decl_repeat2, 2991), (aux_sym_fb_decl_repeat3, 803), (aux_sym_SFC_repeat1, 7612),
     (aux_sym_stmt_list_repeat1, 2024), (aux_sym_ladder_diagram_repeat1, 8009),
     (aux_sym_fb_diagram_repeat1, 8013), (sym_identifier, 298),
     (aux_sym_ERR_unexpected_this_in_path_token1, 304),
     (aux_sym_ERR_unexpected_super_in_path_token1, 306), (sym_line_comment, 3),
     (anon_sym_LBRACE, 308), (aux_sym_test_pragma_token1, 9), (aux_sym_once_pragma_token1, 11),
     (aux_sym_must_call_pragma_token1, 13), (aux_sym_export_pragma_token1, 15),
     (anon_sym_SEMI, 310), (anon_sym_PERCENT, 312), (aux_sym_input_decls_token1, 314),
     (aux_sym_output_decls_token1, 316), (aux_sym_in_out_decls_token1, 318),
     (aux_sym_var_decls_token1, 320), (aux_sym_temp_var_decls_token1, 322),
     (aux_sym_external_var_decls_token1, 324), (aux_sym_global_var_decls_token1, 326),
     (aux_sym_fb_decl_token4, 854), (aux_sym_method_decl_token1, 330),
     (aux_sym_prog_access_decls_token1, 332), (aux_sym_initial_step_token1, 334),
     (aux_sym_config_init_token1, 336), (aux_sym_using_directive_token1, 338),
     (aux_sym__stmt_token1, 340), (aux_sym__stmt_token2, 340), (aux_sym__stmt_token3, 340),
     (aux_sym_if_stmt_token1, 342), (aux_sym_case_stmt_token1, 344), (aux_sym_for_stmt_token1, 346),
     (aux_sym_while_stmt_token1, 348), (aux_sym_repeat_stmt_token1, 350),
     (aux_sym_raise_stmt_token1, 352), (aux_sym_try_stmt_token1, 354),
     (aux_sym_try_stmt_token2, 356), (aux_sym_catch_clause_token1, 356),
     (aux_sym_finally_clause_token1, 356), (sym_ld_rung, 358), (sym_fbd_network, 360),
     (sym_c_style_comment, 3), (sym_pascal_style_comment, 3), (sym_pragma, 3)]"

lemma ts_parse_row_262_scan: "row_scan tokens_63_2 0 ts_parse_row_262 = Some (Suc (Suc (Suc (Suc 0))))"
  unfolding ts_parse_row_262_def by simp

text \<open>Lines 84802 to 84917.\<close>

definition ts_parse_row_263 :: parse_row where
  "ts_parse_row_263 =
    [(sym_ERR_assign_func_call, 7530), (sym_ERR_unexpected_this_in_path, 2372),
     (sym_ERR_unexpected_super_in_path, 2372), (sym_ERR_fb_variables_after_method, 1380),
     (sym_ERR_var_access_not_allowed, 3160), (sym_ERR_var_config_not_allowed, 3160),
     (sym_ERR_var_global_not_allowed, 3160), (sym_ERR_method_decl_in_body, 3150),
     (sym_extern_pragma, 7490), (sym_wasm_pragma, 3150), (sym_warn_pragma, 7490),
     (sym_allow_pragma, 3140), (sym_test_pragma, 7490), (sym_once_pragma, 7490),
     (sym_must_call_pragma, 7490), (sym_export_pragma, 7490), (sym_pou_pragma, 7194),
     (sym_direct_variable, 7675), (sym_deref_expression, 2373), (sym_variable, 7599),
     (sym_var_access, 2373), (sym_in_out_decls, 3160), (sym_var_decls, 3160),
     (sym_retain_var_decls, 3160), (sym_temp_var_decls, 3160), (sym_external_var_decls, 3160),
     (sym_global_var_decls, 2947), (sym_loc_partly_var_decl, 3160), (sym__fb_variables, 864),
     (sym_fb_input_decls, 3160), (sym_fb_output_decls, 3160), (sym_no_retain_var_decls, 3160),
     (sym_fb_body, 9833), (sym_method_decl, 865), (sym_prog_access_decls, 3043), (sym_SFC, 7970),
     (sym_SFC_network, 7612), (sym_initial_step, 7439), (sym_config_init, 3047),
     (sym_using_directive, 2991), (sym_variable_access, 7530), (sym_func_call, 2961),
     (sym_stmt_list, 7970), (sym__stmt, 2024), (sym_assign, 3150), (sym_if_stmt, 3150),
     (sym_case_stmt, 3150), (sym_for_stmt, 3150), (sym_while_stmt, 3150), (sym_repeat_stmt, 3150),
     (sym_raise_stmt, 3150), (sym_try_stmt, 3150), (sym_ERR_clause_outside_try, 3150),
     (sym_begin_path_expression, 2943), (sym_invocation, 2934), (sym_any_invocation, 2935),
     (sym_this_invocation, 2641), (sym_super_invocation, 2641), (sym_super_body_invocation, 2935),
     (sym_path_expression, 2627), (sym_field_expression, 2373), (sym_index_expression, 2373),
     (sym_ladder_diagram, 7970), (sym_fb_diagram, 7970),
     (aux_sym_ERR_fb_variables_after_method_repeat1, 864), (aux_sym_func_decl_repeat1, 7194),
     (aux_sym_func_decl_repeat2, 2991), (aux_sym_fb_decl_repeat3, 865), (aux_sym_SFC_repeat1, 7612),
     (aux_sym_stmt_list_repeat1, 2024), (aux_sym_ladder_diagram_repeat1, 8009),
     (aux_sym_fb_diagram_repeat1, 8013), (sym_identifier, 298),
     (aux_sym_ERR_unexpected_this_in_path_token1, 304),
     (aux_sym_ERR_unexpected_super_in_path_token1, 306), (sym_line_comment, 3),
     (anon_sym_LBRACE, 308), (aux_sym_test_pragma_token1, 9), (aux_sym_once_pragma_token1, 11),
     (aux_sym_must_call_pragma_token1, 13), (aux_sym_export_pragma_token1, 15),
     (anon_sym_SEMI, 310), (anon_sym_PERCENT, 312), (aux_sym_input_decls_token1, 314),
     (aux_sym_output_decls_token1, 316), (aux_sym_in_out_decls_token1, 318),
     (aux_sym_var_decls_token1, 320), (aux_sym_temp_var_decls_token1, 322),
     (aux_sym_external_var_decls_token1, 324), (aux_sym_global_var_decls_token1, 326),
     (aux_sym_fb_decl_token4, 856), (aux_sym_method_decl_token1, 330),
     (aux_sym_prog_access_decls_token1, 332), (aux_sym_initial_step_token1, 334),
     (aux_sym_config_init_token1, 336), (aux_sym_using_directive_token1, 338),
     (aux_sym__stmt_token1, 340), (aux_sym__stmt_token2, 340), (aux_sym__stmt_token3, 340),
     (aux_sym_if_stmt_token1, 342), (aux_sym_case_stmt_token1, 344), (aux_sym_for_stmt_token1, 346),
     (aux_sym_while_stmt_token1, 348), (aux_sym_repeat_stmt_token1, 350),
     (aux_sym_raise_stmt_token1, 352), (aux_sym_try_stmt_token1, 354),
     (aux_sym_try_stmt_token2, 356), (aux_sym_catch_clause_token1, 356),
     (aux_sym_finally_clause_token1, 356), (sym_ld_rung, 358), (sym_fbd_network, 360),
     (sym_c_style_comment, 3), (sym_pascal_style_comment, 3), (sym_pragma, 3)]"

lemma ts_parse_row_263_scan: "row_scan tokens_63_2 0 ts_parse_row_263 = Some (Suc (Suc (Suc (Suc 0))))"
  unfolding ts_parse_row_263_def by simp

text \<open>Lines 84918 to 85033.\<close>

definition ts_parse_row_264 :: parse_row where
  "ts_parse_row_264 =
    [(sym_ERR_assign_func_call, 7530), (sym_ERR_unexpected_this_in_path, 2372),
     (sym_ERR_unexpected_super_in_path, 2372), (sym_ERR_fb_variables_after_method, 1737),
     (sym_ERR_var_access_not_allowed, 3160), (sym_ERR_var_config_not_allowed, 3160),
     (sym_ERR_var_global_not_allowed, 3160), (sym_ERR_method_decl_in_body, 3150),
     (sym_extern_pragma, 7490), (sym_wasm_pragma, 3150), (sym_warn_pragma, 7490),
     (sym_allow_pragma, 3140), (sym_test_pragma, 7490), (sym_once_pragma, 7490),
     (sym_must_call_pragma, 7490), (sym_export_pragma, 7490), (sym_pou_pragma, 7194),
     (sym_direct_variable, 7675), (sym_deref_expression, 2373), (sym_variable, 7599),
     (sym_var_access, 2373), (sym_in_out_decls, 3160), (sym_var_decls, 3160),
     (sym_retain_var_decls, 3160), (sym_temp_var_decls, 3160), (sym_external_var_decls, 3160),
     (sym_global_var_decls, 2947), (sym_loc_partly_var_decl, 3160), (sym__fb_variables, 813),
     (sym_fb_input_decls, 3160), (sym_fb_output_decls, 3160), (sym_no_retain_var_decls, 3160),
     (sym_fb_body, 9605), (sym_method_decl, 814), (sym_prog_access_decls, 3043), (sym_SFC, 7970),
     (sym_SFC_network, 7612), (sym_initial_step, 7439), (sym_config_init, 3047),
     (sym_using_directive, 2991), (sym_variable_access, 7530), (sym_func_call, 2961),
     (sym_stmt_list, 7970), (sym__stmt, 2024), (sym_assign, 3150), (sym_if_stmt, 3150),
     (sym_case_stmt, 3150), (sym_for_stmt, 3150), (sym_while_stmt, 3150), (sym_repeat_stmt, 3150),
     (sym_raise_stmt, 3150), (sym_try_stmt, 3150), (sym_ERR_clause_outside_try, 3150),
     (sym_begin_path_expression, 2943), (sym_invocation, 2934), (sym_any_invocation, 2935),
     (sym_this_invocation, 2641), (sym_super_invocation, 2641), (sym_super_body_invocation, 2935),
     (sym_path_expression, 2627), (sym_field_expression, 2373), (sym_index_expression, 2373),
     (sym_ladder_diagram, 7970), (sym_fb_diagram, 7970),
     (aux_sym_ERR_fb_variables_after_method_repeat1, 813), (aux_sym_func_decl_repeat1, 7194),
     (aux_sym_func_decl_repeat2, 2991), (aux_sym_fb_decl_repeat3, 814), (aux_sym_SFC_repeat1, 7612),
     (aux_sym_stmt_list_repeat1, 2024), (aux_sym_ladder_diagram_repeat1, 8009),
     (aux_sym_fb_diagram_repeat1, 8013), (sym_identifier, 298),
     (aux_sym_ERR_unexpected_this_in_path_token1, 304),
     (aux_sym_ERR_unexpected_super_in_path_token1, 306), (sym_line_comment, 3),
     (anon_sym_LBRACE, 308), (aux_sym_test_pragma_token1, 9), (aux_sym_once_pragma_token1, 11),
     (aux_sym_must_call_pragma_token1, 13), (aux_sym_export_pragma_token1, 15),
     (anon_sym_SEMI, 310), (anon_sym_PERCENT, 312), (aux_sym_input_decls_token1, 314),
     (aux_sym_output_decls_token1, 316), (aux_sym_in_out_decls_token1, 318),
     (aux_sym_var_decls_token1, 320), (aux_sym_temp_var_decls_token1, 322),
     (aux_sym_external_var_decls_token1, 324), (aux_sym_global_var_decls_token1, 326),
     (aux_sym_fb_decl_token4, 858), (aux_sym_method_decl_token1, 330),
     (aux_sym_prog_access_decls_token1, 332), (aux_sym_initial_step_token1, 334),
     (aux_sym_config_init_token1, 336), (aux_sym_using_directive_token1, 338),
     (aux_sym__stmt_token1, 340), (aux_sym__stmt_token2, 340), (aux_sym__stmt_token3, 340),
     (aux_sym_if_stmt_token1, 342), (aux_sym_case_stmt_token1, 344), (aux_sym_for_stmt_token1, 346),
     (aux_sym_while_stmt_token1, 348), (aux_sym_repeat_stmt_token1, 350),
     (aux_sym_raise_stmt_token1, 352), (aux_sym_try_stmt_token1, 354),
     (aux_sym_try_stmt_token2, 356), (aux_sym_catch_clause_token1, 356),
     (aux_sym_finally_clause_token1, 356), (sym_ld_rung, 358), (sym_fbd_network, 360),
     (sym_c_style_comment, 3), (sym_pascal_style_comment, 3), (sym_pragma, 3)]"

lemma ts_parse_row_264_scan: "row_scan tokens_63_2 0 ts_parse_row_264 = Some (Suc (Suc (Suc (Suc 0))))"
  unfolding ts_parse_row_264_def by simp

text \<open>Lines 85034 to 85149.\<close>

definition ts_parse_row_265 :: parse_row where
  "ts_parse_row_265 =
    [(sym_ERR_assign_func_call, 7530), (sym_ERR_unexpected_this_in_path, 2372),
     (sym_ERR_unexpected_super_in_path, 2372), (sym_ERR_fb_variables_after_method, 1758),
     (sym_ERR_var_access_not_allowed, 3160), (sym_ERR_var_config_not_allowed, 3160),
     (sym_ERR_var_global_not_allowed, 3160), (sym_ERR_method_decl_in_body, 3150),
     (sym_extern_pragma, 7490), (sym_wasm_pragma, 3150), (sym_warn_pragma, 7490),
     (sym_allow_pragma, 3140), (sym_test_pragma, 7490), (sym_once_pragma, 7490),
     (sym_must_call_pragma, 7490), (sym_export_pragma, 7490), (sym_pou_pragma, 7194),
     (sym_direct_variable, 7675), (sym_deref_expression, 2373), (sym_variable, 7599),
     (sym_var_access, 2373), (sym_in_out_decls, 3160), (sym_var_decls, 3160),
     (sym_retain_var_decls, 3160), (sym_temp_var_decls, 3160), (sym_external_var_decls, 3160),
     (sym_global_var_decls, 2947), (sym_loc_partly_var_decl, 3160), (sym__fb_variables, 819),
     (sym_fb_input_decls, 3160), (sym_fb_output_decls, 3160), (sym_no_retain_var_decls, 3160),
     (sym_fb_body, 10298), (sym_method_decl, 820), (sym_prog_access_decls, 3043), (sym_SFC, 7970),
     (sym_SFC_network, 7612), (sym_initial_step, 7439), (sym_config_init, 3047),
     (sym_using_directive, 2991), (sym_variable_access, 7530), (sym_func_call, 2961),
     (sym_stmt_list, 7970), (sym__stmt, 2024), (sym_assign, 3150), (sym_if_stmt, 3150),
     (sym_case_stmt, 3150), (sym_for_stmt, 3150), (sym_while_stmt, 3150), (sym_repeat_stmt, 3150),
     (sym_raise_stmt, 3150), (sym_try_stmt, 3150), (sym_ERR_clause_outside_try, 3150),
     (sym_begin_path_expression, 2943), (sym_invocation, 2934), (sym_any_invocation, 2935),
     (sym_this_invocation, 2641), (sym_super_invocation, 2641), (sym_super_body_invocation, 2935),
     (sym_path_expression, 2627), (sym_field_expression, 2373), (sym_index_expression, 2373),
     (sym_ladder_diagram, 7970), (sym_fb_diagram, 7970),
     (aux_sym_ERR_fb_variables_after_method_repeat1, 819), (aux_sym_func_decl_repeat1, 7194),
     (aux_sym_func_decl_repeat2, 2991), (aux_sym_fb_decl_repeat3, 820), (aux_sym_SFC_repeat1, 7612),
     (aux_sym_stmt_list_repeat1, 2024), (aux_sym_ladder_diagram_repeat1, 8009),
     (aux_sym_fb_diagram_repeat1, 8013), (sym_identifier, 298),
     (aux_sym_ERR_unexpected_this_in_path_token1, 304),
     (aux_sym_ERR_unexpected_super_in_path_token1, 306), (sym_line_comment, 3),
     (anon_sym_LBRACE, 308), (aux_sym_test_pragma_token1, 9), (aux_sym_once_pragma_token1, 11),
     (aux_sym_must_call_pragma_token1, 13), (aux_sym_export_pragma_token1, 15),
     (anon_sym_SEMI, 310), (anon_sym_PERCENT, 312), (aux_sym_input_decls_token1, 314),
     (aux_sym_output_decls_token1, 316), (aux_sym_in_out_decls_token1, 318),
     (aux_sym_var_decls_token1, 320), (aux_sym_temp_var_decls_token1, 322),
     (aux_sym_external_var_decls_token1, 324), (aux_sym_global_var_decls_token1, 326),
     (aux_sym_fb_decl_token4, 860), (aux_sym_method_decl_token1, 330),
     (aux_sym_prog_access_decls_token1, 332), (aux_sym_initial_step_token1, 334),
     (aux_sym_config_init_token1, 336), (aux_sym_using_directive_token1, 338),
     (aux_sym__stmt_token1, 340), (aux_sym__stmt_token2, 340), (aux_sym__stmt_token3, 340),
     (aux_sym_if_stmt_token1, 342), (aux_sym_case_stmt_token1, 344), (aux_sym_for_stmt_token1, 346),
     (aux_sym_while_stmt_token1, 348), (aux_sym_repeat_stmt_token1, 350),
     (aux_sym_raise_stmt_token1, 352), (aux_sym_try_stmt_token1, 354),
     (aux_sym_try_stmt_token2, 356), (aux_sym_catch_clause_token1, 356),
     (aux_sym_finally_clause_token1, 356), (sym_ld_rung, 358), (sym_fbd_network, 360),
     (sym_c_style_comment, 3), (sym_pascal_style_comment, 3), (sym_pragma, 3)]"

lemma ts_parse_row_265_scan: "row_scan tokens_63_2 0 ts_parse_row_265 = Some (Suc (Suc (Suc (Suc 0))))"
  unfolding ts_parse_row_265_def by simp

text \<open>Lines 85150 to 85265.\<close>

definition ts_parse_row_266 :: parse_row where
  "ts_parse_row_266 =
    [(sym_ERR_assign_func_call, 7530), (sym_ERR_unexpected_this_in_path, 2372),
     (sym_ERR_unexpected_super_in_path, 2372), (sym_ERR_fb_variables_after_method, 1998),
     (sym_ERR_var_access_not_allowed, 3160), (sym_ERR_var_config_not_allowed, 3160),
     (sym_ERR_var_global_not_allowed, 3160), (sym_ERR_method_decl_in_body, 3150),
     (sym_extern_pragma, 7490), (sym_wasm_pragma, 3150), (sym_warn_pragma, 7490),
     (sym_allow_pragma, 3140), (sym_test_pragma, 7490), (sym_once_pragma, 7490),
     (sym_must_call_pragma, 7490), (sym_export_pragma, 7490), (sym_pou_pragma, 7194),
     (sym_direct_variable, 7675), (sym_deref_expression, 2373), (sym_variable, 7599),
     (sym_var_access, 2373), (sym_in_out_decls, 3160), (sym_var_decls, 3160),
     (sym_retain_var_decls, 3160), (sym_temp_var_decls, 3160), (sym_external_var_decls, 3160),
     (sym_global_var_decls, 2947), (sym_loc_partly_var_decl, 3160), (sym__fb_variables, 823),
     (sym_fb_input_decls, 3160), (sym_fb_output_decls, 3160), (sym_no_retain_var_decls, 3160),
     (sym_fb_body, 8227), (sym_method_decl, 824), (sym_prog_access_decls, 3043), (sym_SFC, 7970),
     (sym_SFC_network, 7612), (sym_initial_step, 7439), (sym_config_init, 3047),
     (sym_using_directive, 2991), (sym_variable_access, 7530), (sym_func_call, 2961),
     (sym_stmt_list, 7970), (sym__stmt, 2024), (sym_assign, 3150), (sym_if_stmt, 3150),
     (sym_case_stmt, 3150), (sym_for_stmt, 3150), (sym_while_stmt, 3150), (sym_repeat_stmt, 3150),
     (sym_raise_stmt, 3150), (sym_try_stmt, 3150), (sym_ERR_clause_outside_try, 3150),
     (sym_begin_path_expression, 2943), (sym_invocation, 2934), (sym_any_invocation, 2935),
     (sym_this_invocation, 2641), (sym_super_invocation, 2641), (sym_super_body_invocation, 2935),
     (sym_path_expression, 2627), (sym_field_expression, 2373), (sym_index_expression, 2373),
     (sym_ladder_diagram, 7970), (sym_fb_diagram, 7970),
     (aux_sym_ERR_fb_variables_after_method_repeat1, 823), (aux_sym_func_decl_repeat1, 7194),
     (aux_sym_func_decl_repeat2, 2991), (aux_sym_fb_decl_repeat3, 824), (aux_sym_SFC_repeat1, 7612),
     (aux_sym_stmt_list_repeat1, 2024), (aux_sym_ladder_diagram_repeat1, 8009),
     (aux_sym_fb_diagram_repeat1, 8013), (sym_identifier, 298),
     (aux_sym_ERR_unexpected_this_in_path_token1, 304),
     (aux_sym_ERR_unexpected_super_in_path_token1, 306), (sym_line_comment, 3),
     (anon_sym_LBRACE, 308), (aux_sym_test_pragma_token1, 9), (aux_sym_once_pragma_token1, 11),
     (aux_sym_must_call_pragma_token1, 13), (aux_sym_export_pragma_token1, 15),
     (anon_sym_SEMI, 310), (anon_sym_PERCENT, 312), (aux_sym_input_decls_token1, 314),
     (aux_sym_output_decls_token1, 316), (aux_sym_in_out_decls_token1, 318),
     (aux_sym_var_decls_token1, 320), (aux_sym_temp_var_decls_token1, 322),
     (aux_sym_external_var_decls_token1, 324), (aux_sym_global_var_decls_token1, 326),
     (aux_sym_fb_decl_token4, 862), (aux_sym_method_decl_token1, 330),
     (aux_sym_prog_access_decls_token1, 332), (aux_sym_initial_step_token1, 334),
     (aux_sym_config_init_token1, 336), (aux_sym_using_directive_token1, 338),
     (aux_sym__stmt_token1, 340), (aux_sym__stmt_token2, 340), (aux_sym__stmt_token3, 340),
     (aux_sym_if_stmt_token1, 342), (aux_sym_case_stmt_token1, 344), (aux_sym_for_stmt_token1, 346),
     (aux_sym_while_stmt_token1, 348), (aux_sym_repeat_stmt_token1, 350),
     (aux_sym_raise_stmt_token1, 352), (aux_sym_try_stmt_token1, 354),
     (aux_sym_try_stmt_token2, 356), (aux_sym_catch_clause_token1, 356),
     (aux_sym_finally_clause_token1, 356), (sym_ld_rung, 358), (sym_fbd_network, 360),
     (sym_c_style_comment, 3), (sym_pascal_style_comment, 3), (sym_pragma, 3)]"

lemma ts_parse_row_266_scan: "row_scan tokens_63_2 0 ts_parse_row_266 = Some (Suc (Suc (Suc (Suc 0))))"
  unfolding ts_parse_row_266_def by simp

text \<open>Lines 85266 to 85381.\<close>

definition ts_parse_row_267 :: parse_row where
  "ts_parse_row_267 =
    [(sym_ERR_assign_func_call, 7530), (sym_ERR_unexpected_this_in_path, 2372),
     (sym_ERR_unexpected_super_in_path, 2372), (sym_ERR_fb_variables_after_method, 1772),
     (sym_ERR_var_access_not_allowed, 3160), (sym_ERR_var_config_not_allowed, 3160),
     (sym_ERR_var_global_not_allowed, 3160), (sym_ERR_method_decl_in_body, 3150),
     (sym_extern_pragma, 7490), (sym_wasm_pragma, 3150), (sym_warn_pragma, 7490),
     (sym_allow_pragma, 3140), (sym_test_pragma, 7490), (sym_once_pragma, 7490),
     (sym_must_call_pragma, 7490), (sym_export_pragma, 7490), (sym_pou_pragma, 7194),
     (sym_direct_variable, 7675), (sym_deref_expression, 2373), (sym_variable, 7599),
     (sym_var_access, 2373), (sym_in_out_decls, 3160), (sym_var_decls, 3160),
     (sym_retain_var_decls, 3160), (sym_temp_var_decls, 3160), (sym_external_var_decls, 3160),
     (sym_global_var_decls, 2947), (sym_loc_partly_var_decl, 3160), (sym__fb_variables, 826),
     (sym_fb_input_decls, 3160), (sym_fb_output_decls, 3160), (sym_no_retain_var_decls, 3160),
     (sym_fb_body, 8251), (sym_method_decl, 827), (sym_prog_access_decls, 3043), (sym_SFC, 7970),
     (sym_SFC_network, 7612), (sym_initial_step, 7439), (sym_config_init, 3047),
     (sym_using_directive, 2991), (sym_variable_access, 7530), (sym_func_call, 2961),
     (sym_stmt_list, 7970), (sym__stmt, 2024), (sym_assign, 3150), (sym_if_stmt, 3150),
     (sym_case_stmt, 3150), (sym_for_stmt, 3150), (sym_while_stmt, 3150), (sym_repeat_stmt, 3150),
     (sym_raise_stmt, 3150), (sym_try_stmt, 3150), (sym_ERR_clause_outside_try, 3150),
     (sym_begin_path_expression, 2943), (sym_invocation, 2934), (sym_any_invocation, 2935),
     (sym_this_invocation, 2641), (sym_super_invocation, 2641), (sym_super_body_invocation, 2935),
     (sym_path_expression, 2627), (sym_field_expression, 2373), (sym_index_expression, 2373),
     (sym_ladder_diagram, 7970), (sym_fb_diagram, 7970),
     (aux_sym_ERR_fb_variables_after_method_repeat1, 826), (aux_sym_func_decl_repeat1, 7194),
     (aux_sym_func_decl_repeat2, 2991), (aux_sym_fb_decl_repeat3, 827), (aux_sym_SFC_repeat1, 7612),
     (aux_sym_stmt_list_repeat1, 2024), (aux_sym_ladder_diagram_repeat1, 8009),
     (aux_sym_fb_diagram_repeat1, 8013), (sym_identifier, 298),
     (aux_sym_ERR_unexpected_this_in_path_token1, 304),
     (aux_sym_ERR_unexpected_super_in_path_token1, 306), (sym_line_comment, 3),
     (anon_sym_LBRACE, 308), (aux_sym_test_pragma_token1, 9), (aux_sym_once_pragma_token1, 11),
     (aux_sym_must_call_pragma_token1, 13), (aux_sym_export_pragma_token1, 15),
     (anon_sym_SEMI, 310), (anon_sym_PERCENT, 312), (aux_sym_input_decls_token1, 314),
     (aux_sym_output_decls_token1, 316), (aux_sym_in_out_decls_token1, 318),
     (aux_sym_var_decls_token1, 320), (aux_sym_temp_var_decls_token1, 322),
     (aux_sym_external_var_decls_token1, 324), (aux_sym_global_var_decls_token1, 326),
     (aux_sym_fb_decl_token4, 864), (aux_sym_method_decl_token1, 330),
     (aux_sym_prog_access_decls_token1, 332), (aux_sym_initial_step_token1, 334),
     (aux_sym_config_init_token1, 336), (aux_sym_using_directive_token1, 338),
     (aux_sym__stmt_token1, 340), (aux_sym__stmt_token2, 340), (aux_sym__stmt_token3, 340),
     (aux_sym_if_stmt_token1, 342), (aux_sym_case_stmt_token1, 344), (aux_sym_for_stmt_token1, 346),
     (aux_sym_while_stmt_token1, 348), (aux_sym_repeat_stmt_token1, 350),
     (aux_sym_raise_stmt_token1, 352), (aux_sym_try_stmt_token1, 354),
     (aux_sym_try_stmt_token2, 356), (aux_sym_catch_clause_token1, 356),
     (aux_sym_finally_clause_token1, 356), (sym_ld_rung, 358), (sym_fbd_network, 360),
     (sym_c_style_comment, 3), (sym_pascal_style_comment, 3), (sym_pragma, 3)]"

lemma ts_parse_row_267_scan: "row_scan tokens_63_2 0 ts_parse_row_267 = Some (Suc (Suc (Suc (Suc 0))))"
  unfolding ts_parse_row_267_def by simp

text \<open>Lines 85382 to 85497.\<close>

definition ts_parse_row_268 :: parse_row where
  "ts_parse_row_268 =
    [(sym_ERR_assign_func_call, 7530), (sym_ERR_unexpected_this_in_path, 2372),
     (sym_ERR_unexpected_super_in_path, 2372), (sym_ERR_fb_variables_after_method, 1265),
     (sym_ERR_var_access_not_allowed, 3160), (sym_ERR_var_config_not_allowed, 3160),
     (sym_ERR_var_global_not_allowed, 3160), (sym_ERR_method_decl_in_body, 3150),
     (sym_extern_pragma, 7490), (sym_wasm_pragma, 3150), (sym_warn_pragma, 7490),
     (sym_allow_pragma, 3140), (sym_test_pragma, 7490), (sym_once_pragma, 7490),
     (sym_must_call_pragma, 7490), (sym_export_pragma, 7490), (sym_pou_pragma, 7194),
     (sym_direct_variable, 7675), (sym_deref_expression, 2373), (sym_variable, 7599),
     (sym_var_access, 2373), (sym_in_out_decls, 3160), (sym_var_decls, 3160),
     (sym_retain_var_decls, 3160), (sym_temp_var_decls, 3160), (sym_external_var_decls, 3160),
     (sym_global_var_decls, 2947), (sym_loc_partly_var_decl, 3160), (sym__fb_variables, 529),
     (sym_fb_input_decls, 3160), (sym_fb_output_decls, 3160), (sym_no_retain_var_decls, 3160),
     (sym_fb_body, 8947), (sym_method_decl, 530), (sym_prog_access_decls, 3043), (sym_SFC, 7970),
     (sym_SFC_network, 7612), (sym_initial_step, 7439), (sym_config_init, 3047),
     (sym_using_directive, 2991), (sym_variable_access, 7530), (sym_func_call, 2961),
     (sym_stmt_list, 7970), (sym__stmt, 2024), (sym_assign, 3150), (sym_if_stmt, 3150),
     (sym_case_stmt, 3150), (sym_for_stmt, 3150), (sym_while_stmt, 3150), (sym_repeat_stmt, 3150),
     (sym_raise_stmt, 3150), (sym_try_stmt, 3150), (sym_ERR_clause_outside_try, 3150),
     (sym_begin_path_expression, 2943), (sym_invocation, 2934), (sym_any_invocation, 2935),
     (sym_this_invocation, 2641), (sym_super_invocation, 2641), (sym_super_body_invocation, 2935),
     (sym_path_expression, 2627), (sym_field_expression, 2373), (sym_index_expression, 2373),
     (sym_ladder_diagram, 7970), (sym_fb_diagram, 7970),
     (aux_sym_ERR_fb_variables_after_method_repeat1, 529), (aux_sym_func_decl_repeat1, 7194),
     (aux_sym_func_decl_repeat2, 2991), (aux_sym_fb_decl_repeat3, 530), (aux_sym_SFC_repeat1, 7612),
     (aux_sym_stmt_list_repeat1, 2024), (aux_sym_ladder_diagram_repeat1, 8009),
     (aux_sym_fb_diagram_repeat1, 8013), (sym_identifier, 298),
     (aux_sym_ERR_unexpected_this_in_path_token1, 304),
     (aux_sym_ERR_unexpected_super_in_path_token1, 306), (sym_line_comment, 3),
     (anon_sym_LBRACE, 308), (aux_sym_test_pragma_token1, 9), (aux_sym_once_pragma_token1, 11),
     (aux_sym_must_call_pragma_token1, 13), (aux_sym_export_pragma_token1, 15),
     (anon_sym_SEMI, 310), (anon_sym_PERCENT, 312), (aux_sym_input_decls_token1, 314),
     (aux_sym_output_decls_token1, 316), (aux_sym_in_out_decls_token1, 318),
     (aux_sym_var_decls_token1, 320), (aux_sym_temp_var_decls_token1, 322),
     (aux_sym_external_var_decls_token1, 324), (aux_sym_global_var_decls_token1, 326),
     (aux_sym_fb_decl_token4, 866), (aux_sym_method_decl_token1, 330),
     (aux_sym_prog_access_decls_token1, 332), (aux_sym_initial_step_token1, 334),
     (aux_sym_config_init_token1, 336), (aux_sym_using_directive_token1, 338),
     (aux_sym__stmt_token1, 340), (aux_sym__stmt_token2, 340), (aux_sym__stmt_token3, 340),
     (aux_sym_if_stmt_token1, 342), (aux_sym_case_stmt_token1, 344), (aux_sym_for_stmt_token1, 346),
     (aux_sym_while_stmt_token1, 348), (aux_sym_repeat_stmt_token1, 350),
     (aux_sym_raise_stmt_token1, 352), (aux_sym_try_stmt_token1, 354),
     (aux_sym_try_stmt_token2, 356), (aux_sym_catch_clause_token1, 356),
     (aux_sym_finally_clause_token1, 356), (sym_ld_rung, 358), (sym_fbd_network, 360),
     (sym_c_style_comment, 3), (sym_pascal_style_comment, 3), (sym_pragma, 3)]"

lemma ts_parse_row_268_scan: "row_scan tokens_63_2 0 ts_parse_row_268 = Some (Suc (Suc (Suc (Suc 0))))"
  unfolding ts_parse_row_268_def by simp

text \<open>Lines 85498 to 85613.\<close>

definition ts_parse_row_269 :: parse_row where
  "ts_parse_row_269 =
    [(sym_ERR_assign_func_call, 7530), (sym_ERR_unexpected_this_in_path, 2372),
     (sym_ERR_unexpected_super_in_path, 2372), (sym_ERR_fb_variables_after_method, 1804),
     (sym_ERR_var_access_not_allowed, 3160), (sym_ERR_var_config_not_allowed, 3160),
     (sym_ERR_var_global_not_allowed, 3160), (sym_ERR_method_decl_in_body, 3150),
     (sym_extern_pragma, 7490), (sym_wasm_pragma, 3150), (sym_warn_pragma, 7490),
     (sym_allow_pragma, 3140), (sym_test_pragma, 7490), (sym_once_pragma, 7490),
     (sym_must_call_pragma, 7490), (sym_export_pragma, 7490), (sym_pou_pragma, 7194),
     (sym_direct_variable, 7675), (sym_deref_expression, 2373), (sym_variable, 7599),
     (sym_var_access, 2373), (sym_in_out_decls, 3160), (sym_var_decls, 3160),
     (sym_retain_var_decls, 3160), (sym_temp_var_decls, 3160), (sym_external_var_decls, 3160),
     (sym_global_var_decls, 2947), (sym_loc_partly_var_decl, 3160), (sym__fb_variables, 837),
     (sym_fb_input_decls, 3160), (sym_fb_output_decls, 3160), (sym_no_retain_var_decls, 3160),
     (sym_fb_body, 8470), (sym_method_decl, 838), (sym_prog_access_decls, 3043), (sym_SFC, 7970),
     (sym_SFC_network, 7612), (sym_initial_step, 7439), (sym_config_init, 3047),
     (sym_using_directive, 2991), (sym_variable_access, 7530), (sym_func_call, 2961),
     (sym_stmt_list, 7970), (sym__stmt, 2024), (sym_assign, 3150), (sym_if_stmt, 3150),
     (sym_case_stmt, 3150), (sym_for_stmt, 3150), (sym_while_stmt, 3150), (sym_repeat_stmt, 3150),
     (sym_raise_stmt, 3150), (sym_try_stmt, 3150), (sym_ERR_clause_outside_try, 3150),
     (sym_begin_path_expression, 2943), (sym_invocation, 2934), (sym_any_invocation, 2935),
     (sym_this_invocation, 2641), (sym_super_invocation, 2641), (sym_super_body_invocation, 2935),
     (sym_path_expression, 2627), (sym_field_expression, 2373), (sym_index_expression, 2373),
     (sym_ladder_diagram, 7970), (sym_fb_diagram, 7970),
     (aux_sym_ERR_fb_variables_after_method_repeat1, 837), (aux_sym_func_decl_repeat1, 7194),
     (aux_sym_func_decl_repeat2, 2991), (aux_sym_fb_decl_repeat3, 838), (aux_sym_SFC_repeat1, 7612),
     (aux_sym_stmt_list_repeat1, 2024), (aux_sym_ladder_diagram_repeat1, 8009),
     (aux_sym_fb_diagram_repeat1, 8013), (sym_identifier, 298),
     (aux_sym_ERR_unexpected_this_in_path_token1, 304),
     (aux_sym_ERR_unexpected_super_in_path_token1, 306), (sym_line_comment, 3),
     (anon_sym_LBRACE, 308), (aux_sym_test_pragma_token1, 9), (aux_sym_once_pragma_token1, 11),
     (aux_sym_must_call_pragma_token1, 13), (aux_sym_export_pragma_token1, 15),
     (anon_sym_SEMI, 310), (anon_sym_PERCENT, 312), (aux_sym_input_decls_token1, 314),
     (aux_sym_output_decls_token1, 316), (aux_sym_in_out_decls_token1, 318),
     (aux_sym_var_decls_token1, 320), (aux_sym_temp_var_decls_token1, 322),
     (aux_sym_external_var_decls_token1, 324), (aux_sym_global_var_decls_token1, 326),
     (aux_sym_fb_decl_token4, 868), (aux_sym_method_decl_token1, 330),
     (aux_sym_prog_access_decls_token1, 332), (aux_sym_initial_step_token1, 334),
     (aux_sym_config_init_token1, 336), (aux_sym_using_directive_token1, 338),
     (aux_sym__stmt_token1, 340), (aux_sym__stmt_token2, 340), (aux_sym__stmt_token3, 340),
     (aux_sym_if_stmt_token1, 342), (aux_sym_case_stmt_token1, 344), (aux_sym_for_stmt_token1, 346),
     (aux_sym_while_stmt_token1, 348), (aux_sym_repeat_stmt_token1, 350),
     (aux_sym_raise_stmt_token1, 352), (aux_sym_try_stmt_token1, 354),
     (aux_sym_try_stmt_token2, 356), (aux_sym_catch_clause_token1, 356),
     (aux_sym_finally_clause_token1, 356), (sym_ld_rung, 358), (sym_fbd_network, 360),
     (sym_c_style_comment, 3), (sym_pascal_style_comment, 3), (sym_pragma, 3)]"

lemma ts_parse_row_269_scan: "row_scan tokens_63_2 0 ts_parse_row_269 = Some (Suc (Suc (Suc (Suc 0))))"
  unfolding ts_parse_row_269_def by simp

text \<open>Lines 85614 to 85729.\<close>

definition ts_parse_row_270 :: parse_row where
  "ts_parse_row_270 =
    [(sym_ERR_assign_func_call, 7530), (sym_ERR_unexpected_this_in_path, 2372),
     (sym_ERR_unexpected_super_in_path, 2372), (sym_ERR_fb_variables_after_method, 1904),
     (sym_ERR_var_access_not_allowed, 3160), (sym_ERR_var_config_not_allowed, 3160),
     (sym_ERR_var_global_not_allowed, 3160), (sym_ERR_method_decl_in_body, 3150),
     (sym_extern_pragma, 7490), (sym_wasm_pragma, 3150), (sym_warn_pragma, 7490),
     (sym_allow_pragma, 3140), (sym_test_pragma, 7490), (sym_once_pragma, 7490),
     (sym_must_call_pragma, 7490), (sym_export_pragma, 7490), (sym_pou_pragma, 7194),
     (sym_direct_variable, 7675), (sym_deref_expression, 2373), (sym_variable, 7599),
     (sym_var_access, 2373), (sym_in_out_decls, 3160), (sym_var_decls, 3160),
     (sym_retain_var_decls, 3160), (sym_temp_var_decls, 3160), (sym_external_var_decls, 3160),
     (sym_global_var_decls, 2947), (sym_loc_partly_var_decl, 3160), (sym__fb_variables, 434),
     (sym_fb_input_decls, 3160), (sym_fb_output_decls, 3160), (sym_no_retain_var_decls, 3160),
     (sym_fb_body, 8687), (sym_method_decl, 435), (sym_prog_access_decls, 3043), (sym_SFC, 7970),
     (sym_SFC_network, 7612), (sym_initial_step, 7439), (sym_config_init, 3047),
     (sym_using_directive, 2991), (sym_variable_access, 7530), (sym_func_call, 2961),
     (sym_stmt_list, 7970), (sym__stmt, 2024), (sym_assign, 3150), (sym_if_stmt, 3150),
     (sym_case_stmt, 3150), (sym_for_stmt, 3150), (sym_while_stmt, 3150), (sym_repeat_stmt, 3150),
     (sym_raise_stmt, 3150), (sym_try_stmt, 3150), (sym_ERR_clause_outside_try, 3150),
     (sym_begin_path_expression, 2943), (sym_invocation, 2934), (sym_any_invocation, 2935),
     (sym_this_invocation, 2641), (sym_super_invocation, 2641), (sym_super_body_invocation, 2935),
     (sym_path_expression, 2627), (sym_field_expression, 2373), (sym_index_expression, 2373),
     (sym_ladder_diagram, 7970), (sym_fb_diagram, 7970),
     (aux_sym_ERR_fb_variables_after_method_repeat1, 434), (aux_sym_func_decl_repeat1, 7194),
     (aux_sym_func_decl_repeat2, 2991), (aux_sym_fb_decl_repeat3, 435), (aux_sym_SFC_repeat1, 7612),
     (aux_sym_stmt_list_repeat1, 2024), (aux_sym_ladder_diagram_repeat1, 8009),
     (aux_sym_fb_diagram_repeat1, 8013), (sym_identifier, 298),
     (aux_sym_ERR_unexpected_this_in_path_token1, 304),
     (aux_sym_ERR_unexpected_super_in_path_token1, 306), (sym_line_comment, 3),
     (anon_sym_LBRACE, 308), (aux_sym_test_pragma_token1, 9), (aux_sym_once_pragma_token1, 11),
     (aux_sym_must_call_pragma_token1, 13), (aux_sym_export_pragma_token1, 15),
     (anon_sym_SEMI, 310), (anon_sym_PERCENT, 312), (aux_sym_input_decls_token1, 314),
     (aux_sym_output_decls_token1, 316), (aux_sym_in_out_decls_token1, 318),
     (aux_sym_var_decls_token1, 320), (aux_sym_temp_var_decls_token1, 322),
     (aux_sym_external_var_decls_token1, 324), (aux_sym_global_var_decls_token1, 326),
     (aux_sym_fb_decl_token4, 870), (aux_sym_method_decl_token1, 330),
     (aux_sym_prog_access_decls_token1, 332), (aux_sym_initial_step_token1, 334),
     (aux_sym_config_init_token1, 336), (aux_sym_using_directive_token1, 338),
     (aux_sym__stmt_token1, 340), (aux_sym__stmt_token2, 340), (aux_sym__stmt_token3, 340),
     (aux_sym_if_stmt_token1, 342), (aux_sym_case_stmt_token1, 344), (aux_sym_for_stmt_token1, 346),
     (aux_sym_while_stmt_token1, 348), (aux_sym_repeat_stmt_token1, 350),
     (aux_sym_raise_stmt_token1, 352), (aux_sym_try_stmt_token1, 354),
     (aux_sym_try_stmt_token2, 356), (aux_sym_catch_clause_token1, 356),
     (aux_sym_finally_clause_token1, 356), (sym_ld_rung, 358), (sym_fbd_network, 360),
     (sym_c_style_comment, 3), (sym_pascal_style_comment, 3), (sym_pragma, 3)]"

lemma ts_parse_row_270_scan: "row_scan tokens_63_2 0 ts_parse_row_270 = Some (Suc (Suc (Suc (Suc 0))))"
  unfolding ts_parse_row_270_def by simp

text \<open>Lines 85730 to 85845.\<close>

definition ts_parse_row_271 :: parse_row where
  "ts_parse_row_271 =
    [(sym_ERR_assign_func_call, 7530), (sym_ERR_unexpected_this_in_path, 2372),
     (sym_ERR_unexpected_super_in_path, 2372), (sym_ERR_fb_variables_after_method, 1832),
     (sym_ERR_var_access_not_allowed, 3160), (sym_ERR_var_config_not_allowed, 3160),
     (sym_ERR_var_global_not_allowed, 3160), (sym_ERR_method_decl_in_body, 3150),
     (sym_extern_pragma, 7490), (sym_wasm_pragma, 3150), (sym_warn_pragma, 7490),
     (sym_allow_pragma, 3140), (sym_test_pragma, 7490), (sym_once_pragma, 7490),
     (sym_must_call_pragma, 7490), (sym_export_pragma, 7490), (sym_pou_pragma, 7194),
     (sym_direct_variable, 7675), (sym_deref_expression, 2373), (sym_variable, 7599),
     (sym_var_access, 2373), (sym_in_out_decls, 3160), (sym_var_decls, 3160),
     (sym_retain_var_decls, 3160), (sym_temp_var_decls, 3160), (sym_external_var_decls, 3160),
     (sym_global_var_decls, 2947), (sym_loc_partly_var_decl, 3160), (sym__fb_variables, 844),
     (sym_fb_input_decls, 3160), (sym_fb_output_decls, 3160), (sym_no_retain_var_decls, 3160),
     (sym_fb_body, 8843), (sym_method_decl, 845), (sym_prog_access_decls, 3043), (sym_SFC, 7970),
     (sym_SFC_network, 7612), (sym_initial_step, 7439), (sym_config_init, 3047),
     (sym_using_directive, 2991), (sym_variable_access, 7530), (sym_func_call, 2961),
     (sym_stmt_list, 7970), (sym__stmt, 2024), (sym_assign, 3150), (sym_if_stmt, 3150),
     (sym_case_stmt, 3150), (sym_for_stmt, 3150), (sym_while_stmt, 3150), (sym_repeat_stmt, 3150),
     (sym_raise_stmt, 3150), (sym_try_stmt, 3150), (sym_ERR_clause_outside_try, 3150),
     (sym_begin_path_expression, 2943), (sym_invocation, 2934), (sym_any_invocation, 2935),
     (sym_this_invocation, 2641), (sym_super_invocation, 2641), (sym_super_body_invocation, 2935),
     (sym_path_expression, 2627), (sym_field_expression, 2373), (sym_index_expression, 2373),
     (sym_ladder_diagram, 7970), (sym_fb_diagram, 7970),
     (aux_sym_ERR_fb_variables_after_method_repeat1, 844), (aux_sym_func_decl_repeat1, 7194),
     (aux_sym_func_decl_repeat2, 2991), (aux_sym_fb_decl_repeat3, 845), (aux_sym_SFC_repeat1, 7612),
     (aux_sym_stmt_list_repeat1, 2024), (aux_sym_ladder_diagram_repeat1, 8009),
     (aux_sym_fb_diagram_repeat1, 8013), (sym_identifier, 298),
     (aux_sym_ERR_unexpected_this_in_path_token1, 304),
     (aux_sym_ERR_unexpected_super_in_path_token1, 306), (sym_line_comment, 3),
     (anon_sym_LBRACE, 308), (aux_sym_test_pragma_token1, 9), (aux_sym_once_pragma_token1, 11),
     (aux_sym_must_call_pragma_token1, 13), (aux_sym_export_pragma_token1, 15),
     (anon_sym_SEMI, 310), (anon_sym_PERCENT, 312), (aux_sym_input_decls_token1, 314),
     (aux_sym_output_decls_token1, 316), (aux_sym_in_out_decls_token1, 318),
     (aux_sym_var_decls_token1, 320), (aux_sym_temp_var_decls_token1, 322),
     (aux_sym_external_var_decls_token1, 324), (aux_sym_global_var_decls_token1, 326),
     (aux_sym_fb_decl_token4, 872), (aux_sym_method_decl_token1, 330),
     (aux_sym_prog_access_decls_token1, 332), (aux_sym_initial_step_token1, 334),
     (aux_sym_config_init_token1, 336), (aux_sym_using_directive_token1, 338),
     (aux_sym__stmt_token1, 340), (aux_sym__stmt_token2, 340), (aux_sym__stmt_token3, 340),
     (aux_sym_if_stmt_token1, 342), (aux_sym_case_stmt_token1, 344), (aux_sym_for_stmt_token1, 346),
     (aux_sym_while_stmt_token1, 348), (aux_sym_repeat_stmt_token1, 350),
     (aux_sym_raise_stmt_token1, 352), (aux_sym_try_stmt_token1, 354),
     (aux_sym_try_stmt_token2, 356), (aux_sym_catch_clause_token1, 356),
     (aux_sym_finally_clause_token1, 356), (sym_ld_rung, 358), (sym_fbd_network, 360),
     (sym_c_style_comment, 3), (sym_pascal_style_comment, 3), (sym_pragma, 3)]"

lemma ts_parse_row_271_scan: "row_scan tokens_63_2 0 ts_parse_row_271 = Some (Suc (Suc (Suc (Suc 0))))"
  unfolding ts_parse_row_271_def by simp

text \<open>Lines 85846 to 85961.\<close>

definition ts_parse_row_272 :: parse_row where
  "ts_parse_row_272 =
    [(sym_ERR_assign_func_call, 7530), (sym_ERR_unexpected_this_in_path, 2372),
     (sym_ERR_unexpected_super_in_path, 2372), (sym_ERR_fb_variables_after_method, 1657),
     (sym_ERR_var_access_not_allowed, 3160), (sym_ERR_var_config_not_allowed, 3160),
     (sym_ERR_var_global_not_allowed, 3160), (sym_ERR_method_decl_in_body, 3150),
     (sym_extern_pragma, 7490), (sym_wasm_pragma, 3150), (sym_warn_pragma, 7490),
     (sym_allow_pragma, 3140), (sym_test_pragma, 7490), (sym_once_pragma, 7490),
     (sym_must_call_pragma, 7490), (sym_export_pragma, 7490), (sym_pou_pragma, 7194),
     (sym_direct_variable, 7675), (sym_deref_expression, 2373), (sym_variable, 7599),
     (sym_var_access, 2373), (sym_in_out_decls, 3160), (sym_var_decls, 3160),
     (sym_retain_var_decls, 3160), (sym_temp_var_decls, 3160), (sym_external_var_decls, 3160),
     (sym_global_var_decls, 2947), (sym_loc_partly_var_decl, 3160), (sym__fb_variables, 356),
     (sym_fb_input_decls, 3160), (sym_fb_output_decls, 3160), (sym_no_retain_var_decls, 3160),
     (sym_fb_body, 8936), (sym_method_decl, 357), (sym_prog_access_decls, 3043), (sym_SFC, 7970),
     (sym_SFC_network, 7612), (sym_initial_step, 7439), (sym_config_init, 3047),
     (sym_using_directive, 2991), (sym_variable_access, 7530), (sym_func_call, 2961),
     (sym_stmt_list, 7970), (sym__stmt, 2024), (sym_assign, 3150), (sym_if_stmt, 3150),
     (sym_case_stmt, 3150), (sym_for_stmt, 3150), (sym_while_stmt, 3150), (sym_repeat_stmt, 3150),
     (sym_raise_stmt, 3150), (sym_try_stmt, 3150), (sym_ERR_clause_outside_try, 3150),
     (sym_begin_path_expression, 2943), (sym_invocation, 2934), (sym_any_invocation, 2935),
     (sym_this_invocation, 2641), (sym_super_invocation, 2641), (sym_super_body_invocation, 2935),
     (sym_path_expression, 2627), (sym_field_expression, 2373), (sym_index_expression, 2373),
     (sym_ladder_diagram, 7970), (sym_fb_diagram, 7970),
     (aux_sym_ERR_fb_variables_after_method_repeat1, 356), (aux_sym_func_decl_repeat1, 7194),
     (aux_sym_func_decl_repeat2, 2991), (aux_sym_fb_decl_repeat3, 357), (aux_sym_SFC_repeat1, 7612),
     (aux_sym_stmt_list_repeat1, 2024), (aux_sym_ladder_diagram_repeat1, 8009),
     (aux_sym_fb_diagram_repeat1, 8013), (sym_identifier, 298),
     (aux_sym_ERR_unexpected_this_in_path_token1, 304),
     (aux_sym_ERR_unexpected_super_in_path_token1, 306), (sym_line_comment, 3),
     (anon_sym_LBRACE, 308), (aux_sym_test_pragma_token1, 9), (aux_sym_once_pragma_token1, 11),
     (aux_sym_must_call_pragma_token1, 13), (aux_sym_export_pragma_token1, 15),
     (anon_sym_SEMI, 310), (anon_sym_PERCENT, 312), (aux_sym_input_decls_token1, 314),
     (aux_sym_output_decls_token1, 316), (aux_sym_in_out_decls_token1, 318),
     (aux_sym_var_decls_token1, 320), (aux_sym_temp_var_decls_token1, 322),
     (aux_sym_external_var_decls_token1, 324), (aux_sym_global_var_decls_token1, 326),
     (aux_sym_fb_decl_token4, 874), (aux_sym_method_decl_token1, 330),
     (aux_sym_prog_access_decls_token1, 332), (aux_sym_initial_step_token1, 334),
     (aux_sym_config_init_token1, 336), (aux_sym_using_directive_token1, 338),
     (aux_sym__stmt_token1, 340), (aux_sym__stmt_token2, 340), (aux_sym__stmt_token3, 340),
     (aux_sym_if_stmt_token1, 342), (aux_sym_case_stmt_token1, 344), (aux_sym_for_stmt_token1, 346),
     (aux_sym_while_stmt_token1, 348), (aux_sym_repeat_stmt_token1, 350),
     (aux_sym_raise_stmt_token1, 352), (aux_sym_try_stmt_token1, 354),
     (aux_sym_try_stmt_token2, 356), (aux_sym_catch_clause_token1, 356),
     (aux_sym_finally_clause_token1, 356), (sym_ld_rung, 358), (sym_fbd_network, 360),
     (sym_c_style_comment, 3), (sym_pascal_style_comment, 3), (sym_pragma, 3)]"

lemma ts_parse_row_272_scan: "row_scan tokens_63_2 0 ts_parse_row_272 = Some (Suc (Suc (Suc (Suc 0))))"
  unfolding ts_parse_row_272_def by simp

text \<open>Lines 85962 to 86077.\<close>

definition ts_parse_row_273 :: parse_row where
  "ts_parse_row_273 =
    [(sym_ERR_assign_func_call, 7530), (sym_ERR_unexpected_this_in_path, 2372),
     (sym_ERR_unexpected_super_in_path, 2372), (sym_ERR_fb_variables_after_method, 1640),
     (sym_ERR_var_access_not_allowed, 3160), (sym_ERR_var_config_not_allowed, 3160),
     (sym_ERR_var_global_not_allowed, 3160), (sym_ERR_method_decl_in_body, 3150),
     (sym_extern_pragma, 7490), (sym_wasm_pragma, 3150), (sym_warn_pragma, 7490),
     (sym_allow_pragma, 3140), (sym_test_pragma, 7490), (sym_once_pragma, 7490),
     (sym_must_call_pragma, 7490), (sym_export_pragma, 7490), (sym_pou_pragma, 7194),
     (sym_direct_variable, 7675), (sym_deref_expression, 2373), (sym_variable, 7599),
     (sym_var_access, 2373), (sym_in_out_decls, 3160), (sym_var_decls, 3160),
     (sym_retain_var_decls, 3160), (sym_temp_var_decls, 3160), (sym_external_var_decls, 3160),
     (sym_global_var_decls, 2947), (sym_loc_partly_var_decl, 3160), (sym__fb_variables, 877),
     (sym_fb_input_decls, 3160), (sym_fb_output_decls, 3160), (sym_no_retain_var_decls, 3160),
     (sym_fb_body, 8339), (sym_method_decl, 307), (sym_prog_access_decls, 3043), (sym_SFC, 7970),
     (sym_SFC_network, 7612), (sym_initial_step, 7439), (sym_config_init, 3047),
     (sym_using_directive, 2991), (sym_variable_access, 7530), (sym_func_call, 2961),
     (sym_stmt_list, 7970), (sym__stmt, 2024), (sym_assign, 3150), (sym_if_stmt, 3150),
     (sym_case_stmt, 3150), (sym_for_stmt, 3150), (sym_while_stmt, 3150), (sym_repeat_stmt, 3150),
     (sym_raise_stmt, 3150), (sym_try_stmt, 3150), (sym_ERR_clause_outside_try, 3150),
     (sym_begin_path_expression, 2943), (sym_invocation, 2934), (sym_any_invocation, 2935),
     (sym_this_invocation, 2641), (sym_super_invocation, 2641), (sym_super_body_invocation, 2935),
     (sym_path_expression, 2627), (sym_field_expression, 2373), (sym_index_expression, 2373),
     (sym_ladder_diagram, 7970), (sym_fb_diagram, 7970),
     (aux_sym_ERR_fb_variables_after_method_repeat1, 877), (aux_sym_func_decl_repeat1, 7194),
     (aux_sym_func_decl_repeat2, 2991), (aux_sym_fb_decl_repeat3, 307), (aux_sym_SFC_repeat1, 7612),
     (aux_sym_stmt_list_repeat1, 2024), (aux_sym_ladder_diagram_repeat1, 8009),
     (aux_sym_fb_diagram_repeat1, 8013), (sym_identifier, 298),
     (aux_sym_ERR_unexpected_this_in_path_token1, 304),
     (aux_sym_ERR_unexpected_super_in_path_token1, 306), (sym_line_comment, 3),
     (anon_sym_LBRACE, 308), (aux_sym_test_pragma_token1, 9), (aux_sym_once_pragma_token1, 11),
     (aux_sym_must_call_pragma_token1, 13), (aux_sym_export_pragma_token1, 15),
     (anon_sym_SEMI, 310), (anon_sym_PERCENT, 312), (aux_sym_input_decls_token1, 314),
     (aux_sym_output_decls_token1, 316), (aux_sym_in_out_decls_token1, 318),
     (aux_sym_var_decls_token1, 320), (aux_sym_temp_var_decls_token1, 322),
     (aux_sym_external_var_decls_token1, 324), (aux_sym_global_var_decls_token1, 326),
     (aux_sym_fb_decl_token4, 876), (aux_sym_method_decl_token1, 330),
     (aux_sym_prog_access_decls_token1, 332), (aux_sym_initial_step_token1, 334),
     (aux_sym_config_init_token1, 336), (aux_sym_using_directive_token1, 338),
     (aux_sym__stmt_token1, 340), (aux_sym__stmt_token2, 340), (aux_sym__stmt_token3, 340),
     (aux_sym_if_stmt_token1, 342), (aux_sym_case_stmt_token1, 344), (aux_sym_for_stmt_token1, 346),
     (aux_sym_while_stmt_token1, 348), (aux_sym_repeat_stmt_token1, 350),
     (aux_sym_raise_stmt_token1, 352), (aux_sym_try_stmt_token1, 354),
     (aux_sym_try_stmt_token2, 356), (aux_sym_catch_clause_token1, 356),
     (aux_sym_finally_clause_token1, 356), (sym_ld_rung, 358), (sym_fbd_network, 360),
     (sym_c_style_comment, 3), (sym_pascal_style_comment, 3), (sym_pragma, 3)]"

lemma ts_parse_row_273_scan: "row_scan tokens_63_2 0 ts_parse_row_273 = Some (Suc (Suc (Suc (Suc 0))))"
  unfolding ts_parse_row_273_def by simp

text \<open>Lines 86078 to 86193.\<close>

definition ts_parse_row_274 :: parse_row where
  "ts_parse_row_274 =
    [(sym_ERR_assign_func_call, 7530), (sym_ERR_unexpected_this_in_path, 2372),
     (sym_ERR_unexpected_super_in_path, 2372), (sym_ERR_fb_variables_after_method, 1278),
     (sym_ERR_var_access_not_allowed, 3160), (sym_ERR_var_config_not_allowed, 3160),
     (sym_ERR_var_global_not_allowed, 3160), (sym_ERR_method_decl_in_body, 3150),
     (sym_extern_pragma, 7490), (sym_wasm_pragma, 3150), (sym_warn_pragma, 7490),
     (sym_allow_pragma, 3140), (sym_test_pragma, 7490), (sym_once_pragma, 7490),
     (sym_must_call_pragma, 7490), (sym_export_pragma, 7490), (sym_pou_pragma, 7194),
     (sym_direct_variable, 7675), (sym_deref_expression, 2373), (sym_variable, 7599),
     (sym_var_access, 2373), (sym_in_out_decls, 3160), (sym_var_decls, 3160),
     (sym_retain_var_decls, 3160), (sym_temp_var_decls, 3160), (sym_external_var_decls, 3160),
     (sym_global_var_decls, 2947), (sym_loc_partly_var_decl, 3160), (sym__fb_variables, 540),
     (sym_fb_input_decls, 3160), (sym_fb_output_decls, 3160), (sym_no_retain_var_decls, 3160),
     (sym_fb_body, 9044), (sym_method_decl, 541), (sym_prog_access_decls, 3043), (sym_SFC, 7970),
     (sym_SFC_network, 7612), (sym_initial_step, 7439), (sym_config_init, 3047),
     (sym_using_directive, 2991), (sym_variable_access, 7530), (sym_func_call, 2961),
     (sym_stmt_list, 7970), (sym__stmt, 2024), (sym_assign, 3150), (sym_if_stmt, 3150),
     (sym_case_stmt, 3150), (sym_for_stmt, 3150), (sym_while_stmt, 3150), (sym_repeat_stmt, 3150),
     (sym_raise_stmt, 3150), (sym_try_stmt, 3150), (sym_ERR_clause_outside_try, 3150),
     (sym_begin_path_expression, 2943), (sym_invocation, 2934), (sym_any_invocation, 2935),
     (sym_this_invocation, 2641), (sym_super_invocation, 2641), (sym_super_body_invocation, 2935),
     (sym_path_expression, 2627), (sym_field_expression, 2373), (sym_index_expression, 2373),
     (sym_ladder_diagram, 7970), (sym_fb_diagram, 7970),
     (aux_sym_ERR_fb_variables_after_method_repeat1, 540), (aux_sym_func_decl_repeat1, 7194),
     (aux_sym_func_decl_repeat2, 2991), (aux_sym_fb_decl_repeat3, 541), (aux_sym_SFC_repeat1, 7612),
     (aux_sym_stmt_list_repeat1, 2024), (aux_sym_ladder_diagram_repeat1, 8009),
     (aux_sym_fb_diagram_repeat1, 8013), (sym_identifier, 298),
     (aux_sym_ERR_unexpected_this_in_path_token1, 304),
     (aux_sym_ERR_unexpected_super_in_path_token1, 306), (sym_line_comment, 3),
     (anon_sym_LBRACE, 308), (aux_sym_test_pragma_token1, 9), (aux_sym_once_pragma_token1, 11),
     (aux_sym_must_call_pragma_token1, 13), (aux_sym_export_pragma_token1, 15),
     (anon_sym_SEMI, 310), (anon_sym_PERCENT, 312), (aux_sym_input_decls_token1, 314),
     (aux_sym_output_decls_token1, 316), (aux_sym_in_out_decls_token1, 318),
     (aux_sym_var_decls_token1, 320), (aux_sym_temp_var_decls_token1, 322),
     (aux_sym_external_var_decls_token1, 324), (aux_sym_global_var_decls_token1, 326),
     (aux_sym_fb_decl_token4, 878), (aux_sym_method_decl_token1, 330),
     (aux_sym_prog_access_decls_token1, 332), (aux_sym_initial_step_token1, 334),
     (aux_sym_config_init_token1, 336), (aux_sym_using_directive_token1, 338),
     (aux_sym__stmt_token1, 340), (aux_sym__stmt_token2, 340), (aux_sym__stmt_token3, 340),
     (aux_sym_if_stmt_token1, 342), (aux_sym_case_stmt_token1, 344), (aux_sym_for_stmt_token1, 346),
     (aux_sym_while_stmt_token1, 348), (aux_sym_repeat_stmt_token1, 350),
     (aux_sym_raise_stmt_token1, 352), (aux_sym_try_stmt_token1, 354),
     (aux_sym_try_stmt_token2, 356), (aux_sym_catch_clause_token1, 356),
     (aux_sym_finally_clause_token1, 356), (sym_ld_rung, 358), (sym_fbd_network, 360),
     (sym_c_style_comment, 3), (sym_pascal_style_comment, 3), (sym_pragma, 3)]"

lemma ts_parse_row_274_scan: "row_scan tokens_63_2 0 ts_parse_row_274 = Some (Suc (Suc (Suc (Suc 0))))"
  unfolding ts_parse_row_274_def by simp

text \<open>Lines 86194 to 86309.\<close>

definition ts_parse_row_275 :: parse_row where
  "ts_parse_row_275 =
    [(sym_ERR_assign_func_call, 7530), (sym_ERR_unexpected_this_in_path, 2372),
     (sym_ERR_unexpected_super_in_path, 2372), (sym_ERR_fb_variables_after_method, 1286),
     (sym_ERR_var_access_not_allowed, 3160), (sym_ERR_var_config_not_allowed, 3160),
     (sym_ERR_var_global_not_allowed, 3160), (sym_ERR_method_decl_in_body, 3150),
     (sym_extern_pragma, 7490), (sym_wasm_pragma, 3150), (sym_warn_pragma, 7490),
     (sym_allow_pragma, 3140), (sym_test_pragma, 7490), (sym_once_pragma, 7490),
     (sym_must_call_pragma, 7490), (sym_export_pragma, 7490), (sym_pou_pragma, 7194),
     (sym_direct_variable, 7675), (sym_deref_expression, 2373), (sym_variable, 7599),
     (sym_var_access, 2373), (sym_in_out_decls, 3160), (sym_var_decls, 3160),
     (sym_retain_var_decls, 3160), (sym_temp_var_decls, 3160), (sym_external_var_decls, 3160),
     (sym_global_var_decls, 2947), (sym_loc_partly_var_decl, 3160), (sym__fb_variables, 544),
     (sym_fb_input_decls, 3160), (sym_fb_output_decls, 3160), (sym_no_retain_var_decls, 3160),
     (sym_fb_body, 9118), (sym_method_decl, 545), (sym_prog_access_decls, 3043), (sym_SFC, 7970),
     (sym_SFC_network, 7612), (sym_initial_step, 7439), (sym_config_init, 3047),
     (sym_using_directive, 2991), (sym_variable_access, 7530), (sym_func_call, 2961),
     (sym_stmt_list, 7970), (sym__stmt, 2024), (sym_assign, 3150), (sym_if_stmt, 3150),
     (sym_case_stmt, 3150), (sym_for_stmt, 3150), (sym_while_stmt, 3150), (sym_repeat_stmt, 3150),
     (sym_raise_stmt, 3150), (sym_try_stmt, 3150), (sym_ERR_clause_outside_try, 3150),
     (sym_begin_path_expression, 2943), (sym_invocation, 2934), (sym_any_invocation, 2935),
     (sym_this_invocation, 2641), (sym_super_invocation, 2641), (sym_super_body_invocation, 2935),
     (sym_path_expression, 2627), (sym_field_expression, 2373), (sym_index_expression, 2373),
     (sym_ladder_diagram, 7970), (sym_fb_diagram, 7970),
     (aux_sym_ERR_fb_variables_after_method_repeat1, 544), (aux_sym_func_decl_repeat1, 7194),
     (aux_sym_func_decl_repeat2, 2991), (aux_sym_fb_decl_repeat3, 545), (aux_sym_SFC_repeat1, 7612),
     (aux_sym_stmt_list_repeat1, 2024), (aux_sym_ladder_diagram_repeat1, 8009),
     (aux_sym_fb_diagram_repeat1, 8013), (sym_identifier, 298),
     (aux_sym_ERR_unexpected_this_in_path_token1, 304),
     (aux_sym_ERR_unexpected_super_in_path_token1, 306), (sym_line_comment, 3),
     (anon_sym_LBRACE, 308), (aux_sym_test_pragma_token1, 9), (aux_sym_once_pragma_token1, 11),
     (aux_sym_must_call_pragma_token1, 13), (aux_sym_export_pragma_token1, 15),
     (anon_sym_SEMI, 310), (anon_sym_PERCENT, 312), (aux_sym_input_decls_token1, 314),
     (aux_sym_output_decls_token1, 316), (aux_sym_in_out_decls_token1, 318),
     (aux_sym_var_decls_token1, 320), (aux_sym_temp_var_decls_token1, 322),
     (aux_sym_external_var_decls_token1, 324), (aux_sym_global_var_decls_token1, 326),
     (aux_sym_fb_decl_token4, 880), (aux_sym_method_decl_token1, 330),
     (aux_sym_prog_access_decls_token1, 332), (aux_sym_initial_step_token1, 334),
     (aux_sym_config_init_token1, 336), (aux_sym_using_directive_token1, 338),
     (aux_sym__stmt_token1, 340), (aux_sym__stmt_token2, 340), (aux_sym__stmt_token3, 340),
     (aux_sym_if_stmt_token1, 342), (aux_sym_case_stmt_token1, 344), (aux_sym_for_stmt_token1, 346),
     (aux_sym_while_stmt_token1, 348), (aux_sym_repeat_stmt_token1, 350),
     (aux_sym_raise_stmt_token1, 352), (aux_sym_try_stmt_token1, 354),
     (aux_sym_try_stmt_token2, 356), (aux_sym_catch_clause_token1, 356),
     (aux_sym_finally_clause_token1, 356), (sym_ld_rung, 358), (sym_fbd_network, 360),
     (sym_c_style_comment, 3), (sym_pascal_style_comment, 3), (sym_pragma, 3)]"

lemma ts_parse_row_275_scan: "row_scan tokens_63_2 0 ts_parse_row_275 = Some (Suc (Suc (Suc (Suc 0))))"
  unfolding ts_parse_row_275_def by simp

text \<open>Lines 86310 to 86425.\<close>

definition ts_parse_row_276 :: parse_row where
  "ts_parse_row_276 =
    [(sym_ERR_assign_func_call, 7530), (sym_ERR_unexpected_this_in_path, 2372),
     (sym_ERR_unexpected_super_in_path, 2372), (sym_ERR_fb_variables_after_method, 1859),
     (sym_ERR_var_access_not_allowed, 3160), (sym_ERR_var_config_not_allowed, 3160),
     (sym_ERR_var_global_not_allowed, 3160), (sym_ERR_method_decl_in_body, 3150),
     (sym_extern_pragma, 7490), (sym_wasm_pragma, 3150), (sym_warn_pragma, 7490),
     (sym_allow_pragma, 3140), (sym_test_pragma, 7490), (sym_once_pragma, 7490),
     (sym_must_call_pragma, 7490), (sym_export_pragma, 7490), (sym_pou_pragma, 7194),
     (sym_direct_variable, 7675), (sym_deref_expression, 2373), (sym_variable, 7599),
     (sym_var_access, 2373), (sym_in_out_decls, 3160), (sym_var_decls, 3160),
     (sym_retain_var_decls, 3160), (sym_temp_var_decls, 3160), (sym_external_var_decls, 3160),
     (sym_global_var_decls, 2947), (sym_loc_partly_var_decl, 3160), (sym__fb_variables, 331),
     (sym_fb_input_decls, 3160), (sym_fb_output_decls, 3160), (sym_no_retain_var_decls, 3160),
     (sym_fb_body, 8289), (sym_method_decl, 337), (sym_prog_access_decls, 3043), (sym_SFC, 7970),
     (sym_SFC_network, 7612), (sym_initial_step, 7439), (sym_config_init, 3047),
     (sym_using_directive, 2991), (sym_variable_access, 7530), (sym_func_call, 2961),
     (sym_stmt_list, 7970), (sym__stmt, 2024), (sym_assign, 3150), (sym_if_stmt, 3150),
     (sym_case_stmt, 3150), (sym_for_stmt, 3150), (sym_while_stmt, 3150), (sym_repeat_stmt, 3150),
     (sym_raise_stmt, 3150), (sym_try_stmt, 3150), (sym_ERR_clause_outside_try, 3150),
     (sym_begin_path_expression, 2943), (sym_invocation, 2934), (sym_any_invocation, 2935),
     (sym_this_invocation, 2641), (sym_super_invocation, 2641), (sym_super_body_invocation, 2935),
     (sym_path_expression, 2627), (sym_field_expression, 2373), (sym_index_expression, 2373),
     (sym_ladder_diagram, 7970), (sym_fb_diagram, 7970),
     (aux_sym_ERR_fb_variables_after_method_repeat1, 331), (aux_sym_func_decl_repeat1, 7194),
     (aux_sym_func_decl_repeat2, 2991), (aux_sym_fb_decl_repeat3, 337), (aux_sym_SFC_repeat1, 7612),
     (aux_sym_stmt_list_repeat1, 2024), (aux_sym_ladder_diagram_repeat1, 8009),
     (aux_sym_fb_diagram_repeat1, 8013), (sym_identifier, 298),
     (aux_sym_ERR_unexpected_this_in_path_token1, 304),
     (aux_sym_ERR_unexpected_super_in_path_token1, 306), (sym_line_comment, 3),
     (anon_sym_LBRACE, 308), (aux_sym_test_pragma_token1, 9), (aux_sym_once_pragma_token1, 11),
     (aux_sym_must_call_pragma_token1, 13), (aux_sym_export_pragma_token1, 15),
     (anon_sym_SEMI, 310), (anon_sym_PERCENT, 312), (aux_sym_input_decls_token1, 314),
     (aux_sym_output_decls_token1, 316), (aux_sym_in_out_decls_token1, 318),
     (aux_sym_var_decls_token1, 320), (aux_sym_temp_var_decls_token1, 322),
     (aux_sym_external_var_decls_token1, 324), (aux_sym_global_var_decls_token1, 326),
     (aux_sym_fb_decl_token4, 882), (aux_sym_method_decl_token1, 330),
     (aux_sym_prog_access_decls_token1, 332), (aux_sym_initial_step_token1, 334),
     (aux_sym_config_init_token1, 336), (aux_sym_using_directive_token1, 338),
     (aux_sym__stmt_token1, 340), (aux_sym__stmt_token2, 340), (aux_sym__stmt_token3, 340),
     (aux_sym_if_stmt_token1, 342), (aux_sym_case_stmt_token1, 344), (aux_sym_for_stmt_token1, 346),
     (aux_sym_while_stmt_token1, 348), (aux_sym_repeat_stmt_token1, 350),
     (aux_sym_raise_stmt_token1, 352), (aux_sym_try_stmt_token1, 354),
     (aux_sym_try_stmt_token2, 356), (aux_sym_catch_clause_token1, 356),
     (aux_sym_finally_clause_token1, 356), (sym_ld_rung, 358), (sym_fbd_network, 360),
     (sym_c_style_comment, 3), (sym_pascal_style_comment, 3), (sym_pragma, 3)]"

lemma ts_parse_row_276_scan: "row_scan tokens_63_2 0 ts_parse_row_276 = Some (Suc (Suc (Suc (Suc 0))))"
  unfolding ts_parse_row_276_def by simp

text \<open>Lines 86426 to 86541.\<close>

definition ts_parse_row_277 :: parse_row where
  "ts_parse_row_277 =
    [(sym_ERR_assign_func_call, 7530), (sym_ERR_unexpected_this_in_path, 2372),
     (sym_ERR_unexpected_super_in_path, 2372), (sym_ERR_fb_variables_after_method, 1858),
     (sym_ERR_var_access_not_allowed, 3160), (sym_ERR_var_config_not_allowed, 3160),
     (sym_ERR_var_global_not_allowed, 3160), (sym_ERR_method_decl_in_body, 3150),
     (sym_extern_pragma, 7490), (sym_wasm_pragma, 3150), (sym_warn_pragma, 7490),
     (sym_allow_pragma, 3140), (sym_test_pragma, 7490), (sym_once_pragma, 7490),
     (sym_must_call_pragma, 7490), (sym_export_pragma, 7490), (sym_pou_pragma, 7194),
     (sym_direct_variable, 7675), (sym_deref_expression, 2373), (sym_variable, 7599),
     (sym_var_access, 2373), (sym_in_out_decls, 3160), (sym_var_decls, 3160),
     (sym_retain_var_decls, 3160), (sym_temp_var_decls, 3160), (sym_external_var_decls, 3160),
     (sym_global_var_decls, 2947), (sym_loc_partly_var_decl, 3160), (sym__fb_variables, 396),
     (sym_fb_input_decls, 3160), (sym_fb_output_decls, 3160), (sym_no_retain_var_decls, 3160),
     (sym_fb_body, 9561), (sym_method_decl, 397), (sym_prog_access_decls, 3043), (sym_SFC, 7970),
     (sym_SFC_network, 7612), (sym_initial_step, 7439), (sym_config_init, 3047),
     (sym_using_directive, 2991), (sym_variable_access, 7530), (sym_func_call, 2961),
     (sym_stmt_list, 7970), (sym__stmt, 2024), (sym_assign, 3150), (sym_if_stmt, 3150),
     (sym_case_stmt, 3150), (sym_for_stmt, 3150), (sym_while_stmt, 3150), (sym_repeat_stmt, 3150),
     (sym_raise_stmt, 3150), (sym_try_stmt, 3150), (sym_ERR_clause_outside_try, 3150),
     (sym_begin_path_expression, 2943), (sym_invocation, 2934), (sym_any_invocation, 2935),
     (sym_this_invocation, 2641), (sym_super_invocation, 2641), (sym_super_body_invocation, 2935),
     (sym_path_expression, 2627), (sym_field_expression, 2373), (sym_index_expression, 2373),
     (sym_ladder_diagram, 7970), (sym_fb_diagram, 7970),
     (aux_sym_ERR_fb_variables_after_method_repeat1, 396), (aux_sym_func_decl_repeat1, 7194),
     (aux_sym_func_decl_repeat2, 2991), (aux_sym_fb_decl_repeat3, 397), (aux_sym_SFC_repeat1, 7612),
     (aux_sym_stmt_list_repeat1, 2024), (aux_sym_ladder_diagram_repeat1, 8009),
     (aux_sym_fb_diagram_repeat1, 8013), (sym_identifier, 298),
     (aux_sym_ERR_unexpected_this_in_path_token1, 304),
     (aux_sym_ERR_unexpected_super_in_path_token1, 306), (sym_line_comment, 3),
     (anon_sym_LBRACE, 308), (aux_sym_test_pragma_token1, 9), (aux_sym_once_pragma_token1, 11),
     (aux_sym_must_call_pragma_token1, 13), (aux_sym_export_pragma_token1, 15),
     (anon_sym_SEMI, 310), (anon_sym_PERCENT, 312), (aux_sym_input_decls_token1, 314),
     (aux_sym_output_decls_token1, 316), (aux_sym_in_out_decls_token1, 318),
     (aux_sym_var_decls_token1, 320), (aux_sym_temp_var_decls_token1, 322),
     (aux_sym_external_var_decls_token1, 324), (aux_sym_global_var_decls_token1, 326),
     (aux_sym_fb_decl_token4, 884), (aux_sym_method_decl_token1, 330),
     (aux_sym_prog_access_decls_token1, 332), (aux_sym_initial_step_token1, 334),
     (aux_sym_config_init_token1, 336), (aux_sym_using_directive_token1, 338),
     (aux_sym__stmt_token1, 340), (aux_sym__stmt_token2, 340), (aux_sym__stmt_token3, 340),
     (aux_sym_if_stmt_token1, 342), (aux_sym_case_stmt_token1, 344), (aux_sym_for_stmt_token1, 346),
     (aux_sym_while_stmt_token1, 348), (aux_sym_repeat_stmt_token1, 350),
     (aux_sym_raise_stmt_token1, 352), (aux_sym_try_stmt_token1, 354),
     (aux_sym_try_stmt_token2, 356), (aux_sym_catch_clause_token1, 356),
     (aux_sym_finally_clause_token1, 356), (sym_ld_rung, 358), (sym_fbd_network, 360),
     (sym_c_style_comment, 3), (sym_pascal_style_comment, 3), (sym_pragma, 3)]"

lemma ts_parse_row_277_scan: "row_scan tokens_63_2 0 ts_parse_row_277 = Some (Suc (Suc (Suc (Suc 0))))"
  unfolding ts_parse_row_277_def by simp

text \<open>Lines 86542 to 86657.\<close>

definition ts_parse_row_278 :: parse_row where
  "ts_parse_row_278 =
    [(sym_ERR_assign_func_call, 7530), (sym_ERR_unexpected_this_in_path, 2372),
     (sym_ERR_unexpected_super_in_path, 2372), (sym_ERR_fb_variables_after_method, 1478),
     (sym_ERR_var_access_not_allowed, 3160), (sym_ERR_var_config_not_allowed, 3160),
     (sym_ERR_var_global_not_allowed, 3160), (sym_ERR_method_decl_in_body, 3150),
     (sym_extern_pragma, 7490), (sym_wasm_pragma, 3150), (sym_warn_pragma, 7490),
     (sym_allow_pragma, 3140), (sym_test_pragma, 7490), (sym_once_pragma, 7490),
     (sym_must_call_pragma, 7490), (sym_export_pragma, 7490), (sym_pou_pragma, 7194),
     (sym_direct_variable, 7675), (sym_deref_expression, 2373), (sym_variable, 7599),
     (sym_var_access, 2373), (sym_in_out_decls, 3160), (sym_var_decls, 3160),
     (sym_retain_var_decls, 3160), (sym_temp_var_decls, 3160), (sym_external_var_decls, 3160),
     (sym_global_var_decls, 2947), (sym_loc_partly_var_decl, 3160), (sym__fb_variables, 322),
     (sym_fb_input_decls, 3160), (sym_fb_output_decls, 3160), (sym_no_retain_var_decls, 3160),
     (sym_fb_body, 8258), (sym_method_decl, 323), (sym_prog_access_decls, 3043), (sym_SFC, 7970),
     (sym_SFC_network, 7612), (sym_initial_step, 7439), (sym_config_init, 3047),
     (sym_using_directive, 2991), (sym_variable_access, 7530), (sym_func_call, 2961),
     (sym_stmt_list, 7970), (sym__stmt, 2024), (sym_assign, 3150), (sym_if_stmt, 3150),
     (sym_case_stmt, 3150), (sym_for_stmt, 3150), (sym_while_stmt, 3150), (sym_repeat_stmt, 3150),
     (sym_raise_stmt, 3150), (sym_try_stmt, 3150), (sym_ERR_clause_outside_try, 3150),
     (sym_begin_path_expression, 2943), (sym_invocation, 2934), (sym_any_invocation, 2935),
     (sym_this_invocation, 2641), (sym_super_invocation, 2641), (sym_super_body_invocation, 2935),
     (sym_path_expression, 2627), (sym_field_expression, 2373), (sym_index_expression, 2373),
     (sym_ladder_diagram, 7970), (sym_fb_diagram, 7970),
     (aux_sym_ERR_fb_variables_after_method_repeat1, 322), (aux_sym_func_decl_repeat1, 7194),
     (aux_sym_func_decl_repeat2, 2991), (aux_sym_fb_decl_repeat3, 323), (aux_sym_SFC_repeat1, 7612),
     (aux_sym_stmt_list_repeat1, 2024), (aux_sym_ladder_diagram_repeat1, 8009),
     (aux_sym_fb_diagram_repeat1, 8013), (sym_identifier, 298),
     (aux_sym_ERR_unexpected_this_in_path_token1, 304),
     (aux_sym_ERR_unexpected_super_in_path_token1, 306), (sym_line_comment, 3),
     (anon_sym_LBRACE, 308), (aux_sym_test_pragma_token1, 9), (aux_sym_once_pragma_token1, 11),
     (aux_sym_must_call_pragma_token1, 13), (aux_sym_export_pragma_token1, 15),
     (anon_sym_SEMI, 310), (anon_sym_PERCENT, 312), (aux_sym_input_decls_token1, 314),
     (aux_sym_output_decls_token1, 316), (aux_sym_in_out_decls_token1, 318),
     (aux_sym_var_decls_token1, 320), (aux_sym_temp_var_decls_token1, 322),
     (aux_sym_external_var_decls_token1, 324), (aux_sym_global_var_decls_token1, 326),
     (aux_sym_fb_decl_token4, 886), (aux_sym_method_decl_token1, 330),
     (aux_sym_prog_access_decls_token1, 332), (aux_sym_initial_step_token1, 334),
     (aux_sym_config_init_token1, 336), (aux_sym_using_directive_token1, 338),
     (aux_sym__stmt_token1, 340), (aux_sym__stmt_token2, 340), (aux_sym__stmt_token3, 340),
     (aux_sym_if_stmt_token1, 342), (aux_sym_case_stmt_token1, 344), (aux_sym_for_stmt_token1, 346),
     (aux_sym_while_stmt_token1, 348), (aux_sym_repeat_stmt_token1, 350),
     (aux_sym_raise_stmt_token1, 352), (aux_sym_try_stmt_token1, 354),
     (aux_sym_try_stmt_token2, 356), (aux_sym_catch_clause_token1, 356),
     (aux_sym_finally_clause_token1, 356), (sym_ld_rung, 358), (sym_fbd_network, 360),
     (sym_c_style_comment, 3), (sym_pascal_style_comment, 3), (sym_pragma, 3)]"

lemma ts_parse_row_278_scan: "row_scan tokens_63_2 0 ts_parse_row_278 = Some (Suc (Suc (Suc (Suc 0))))"
  unfolding ts_parse_row_278_def by simp

text \<open>Lines 86658 to 86773.\<close>

definition ts_parse_row_279 :: parse_row where
  "ts_parse_row_279 =
    [(sym_ERR_assign_func_call, 7530), (sym_ERR_unexpected_this_in_path, 2372),
     (sym_ERR_unexpected_super_in_path, 2372), (sym_ERR_fb_variables_after_method, 1295),
     (sym_ERR_var_access_not_allowed, 3160), (sym_ERR_var_config_not_allowed, 3160),
     (sym_ERR_var_global_not_allowed, 3160), (sym_ERR_method_decl_in_body, 3150),
     (sym_extern_pragma, 7490), (sym_wasm_pragma, 3150), (sym_warn_pragma, 7490),
     (sym_allow_pragma, 3140), (sym_test_pragma, 7490), (sym_once_pragma, 7490),
     (sym_must_call_pragma, 7490), (sym_export_pragma, 7490), (sym_pou_pragma, 7194),
     (sym_direct_variable, 7675), (sym_deref_expression, 2373), (sym_variable, 7599),
     (sym_var_access, 2373), (sym_in_out_decls, 3160), (sym_var_decls, 3160),
     (sym_retain_var_decls, 3160), (sym_temp_var_decls, 3160), (sym_external_var_decls, 3160),
     (sym_global_var_decls, 2947), (sym_loc_partly_var_decl, 3160), (sym__fb_variables, 548),
     (sym_fb_input_decls, 3160), (sym_fb_output_decls, 3160), (sym_no_retain_var_decls, 3160),
     (sym_fb_body, 9706), (sym_method_decl, 549), (sym_prog_access_decls, 3043), (sym_SFC, 7970),
     (sym_SFC_network, 7612), (sym_initial_step, 7439), (sym_config_init, 3047),
     (sym_using_directive, 2991), (sym_variable_access, 7530), (sym_func_call, 2961),
     (sym_stmt_list, 7970), (sym__stmt, 2024), (sym_assign, 3150), (sym_if_stmt, 3150),
     (sym_case_stmt, 3150), (sym_for_stmt, 3150), (sym_while_stmt, 3150), (sym_repeat_stmt, 3150),
     (sym_raise_stmt, 3150), (sym_try_stmt, 3150), (sym_ERR_clause_outside_try, 3150),
     (sym_begin_path_expression, 2943), (sym_invocation, 2934), (sym_any_invocation, 2935),
     (sym_this_invocation, 2641), (sym_super_invocation, 2641), (sym_super_body_invocation, 2935),
     (sym_path_expression, 2627), (sym_field_expression, 2373), (sym_index_expression, 2373),
     (sym_ladder_diagram, 7970), (sym_fb_diagram, 7970),
     (aux_sym_ERR_fb_variables_after_method_repeat1, 548), (aux_sym_func_decl_repeat1, 7194),
     (aux_sym_func_decl_repeat2, 2991), (aux_sym_fb_decl_repeat3, 549), (aux_sym_SFC_repeat1, 7612),
     (aux_sym_stmt_list_repeat1, 2024), (aux_sym_ladder_diagram_repeat1, 8009),
     (aux_sym_fb_diagram_repeat1, 8013), (sym_identifier, 298),
     (aux_sym_ERR_unexpected_this_in_path_token1, 304),
     (aux_sym_ERR_unexpected_super_in_path_token1, 306), (sym_line_comment, 3),
     (anon_sym_LBRACE, 308), (aux_sym_test_pragma_token1, 9), (aux_sym_once_pragma_token1, 11),
     (aux_sym_must_call_pragma_token1, 13), (aux_sym_export_pragma_token1, 15),
     (anon_sym_SEMI, 310), (anon_sym_PERCENT, 312), (aux_sym_input_decls_token1, 314),
     (aux_sym_output_decls_token1, 316), (aux_sym_in_out_decls_token1, 318),
     (aux_sym_var_decls_token1, 320), (aux_sym_temp_var_decls_token1, 322),
     (aux_sym_external_var_decls_token1, 324), (aux_sym_global_var_decls_token1, 326),
     (aux_sym_fb_decl_token4, 888), (aux_sym_method_decl_token1, 330),
     (aux_sym_prog_access_decls_token1, 332), (aux_sym_initial_step_token1, 334),
     (aux_sym_config_init_token1, 336), (aux_sym_using_directive_token1, 338),
     (aux_sym__stmt_token1, 340), (aux_sym__stmt_token2, 340), (aux_sym__stmt_token3, 340),
     (aux_sym_if_stmt_token1, 342), (aux_sym_case_stmt_token1, 344), (aux_sym_for_stmt_token1, 346),
     (aux_sym_while_stmt_token1, 348), (aux_sym_repeat_stmt_token1, 350),
     (aux_sym_raise_stmt_token1, 352), (aux_sym_try_stmt_token1, 354),
     (aux_sym_try_stmt_token2, 356), (aux_sym_catch_clause_token1, 356),
     (aux_sym_finally_clause_token1, 356), (sym_ld_rung, 358), (sym_fbd_network, 360),
     (sym_c_style_comment, 3), (sym_pascal_style_comment, 3), (sym_pragma, 3)]"

lemma ts_parse_row_279_scan: "row_scan tokens_63_2 0 ts_parse_row_279 = Some (Suc (Suc (Suc (Suc 0))))"
  unfolding ts_parse_row_279_def by simp

text \<open>Lines 86774 to 86889.\<close>

definition ts_parse_row_280 :: parse_row where
  "ts_parse_row_280 =
    [(sym_ERR_assign_func_call, 7530), (sym_ERR_unexpected_this_in_path, 2372),
     (sym_ERR_unexpected_super_in_path, 2372), (sym_ERR_fb_variables_after_method, 1918),
     (sym_ERR_var_access_not_allowed, 3160), (sym_ERR_var_config_not_allowed, 3160),
     (sym_ERR_var_global_not_allowed, 3160), (sym_ERR_method_decl_in_body, 3150),
     (sym_extern_pragma, 7490), (sym_wasm_pragma, 3150), (sym_warn_pragma, 7490),
     (sym_allow_pragma, 3140), (sym_test_pragma, 7490), (sym_once_pragma, 7490),
     (sym_must_call_pragma, 7490), (sym_export_pragma, 7490), (sym_pou_pragma, 7194),
     (sym_direct_variable, 7675), (sym_deref_expression, 2373), (sym_variable, 7599),
     (sym_var_access, 2373), (sym_in_out_decls, 3160), (sym_var_decls, 3160),
     (sym_retain_var_decls, 3160), (sym_temp_var_decls, 3160), (sym_external_var_decls, 3160),
     (sym_global_var_decls, 2947), (sym_loc_partly_var_decl, 3160), (sym__fb_variables, 441),
     (sym_fb_input_decls, 3160), (sym_fb_output_decls, 3160), (sym_no_retain_var_decls, 3160),
     (sym_fb_body, 9081), (sym_method_decl, 442), (sym_prog_access_decls, 3043), (sym_SFC, 7970),
     (sym_SFC_network, 7612), (sym_initial_step, 7439), (sym_config_init, 3047),
     (sym_using_directive, 2991), (sym_variable_access, 7530), (sym_func_call, 2961),
     (sym_stmt_list, 7970), (sym__stmt, 2024), (sym_assign, 3150), (sym_if_stmt, 3150),
     (sym_case_stmt, 3150), (sym_for_stmt, 3150), (sym_while_stmt, 3150), (sym_repeat_stmt, 3150),
     (sym_raise_stmt, 3150), (sym_try_stmt, 3150), (sym_ERR_clause_outside_try, 3150),
     (sym_begin_path_expression, 2943), (sym_invocation, 2934), (sym_any_invocation, 2935),
     (sym_this_invocation, 2641), (sym_super_invocation, 2641), (sym_super_body_invocation, 2935),
     (sym_path_expression, 2627), (sym_field_expression, 2373), (sym_index_expression, 2373),
     (sym_ladder_diagram, 7970), (sym_fb_diagram, 7970),
     (aux_sym_ERR_fb_variables_after_method_repeat1, 441), (aux_sym_func_decl_repeat1, 7194),
     (aux_sym_func_decl_repeat2, 2991), (aux_sym_fb_decl_repeat3, 442), (aux_sym_SFC_repeat1, 7612),
     (aux_sym_stmt_list_repeat1, 2024), (aux_sym_ladder_diagram_repeat1, 8009),
     (aux_sym_fb_diagram_repeat1, 8013), (sym_identifier, 298),
     (aux_sym_ERR_unexpected_this_in_path_token1, 304),
     (aux_sym_ERR_unexpected_super_in_path_token1, 306), (sym_line_comment, 3),
     (anon_sym_LBRACE, 308), (aux_sym_test_pragma_token1, 9), (aux_sym_once_pragma_token1, 11),
     (aux_sym_must_call_pragma_token1, 13), (aux_sym_export_pragma_token1, 15),
     (anon_sym_SEMI, 310), (anon_sym_PERCENT, 312), (aux_sym_input_decls_token1, 314),
     (aux_sym_output_decls_token1, 316), (aux_sym_in_out_decls_token1, 318),
     (aux_sym_var_decls_token1, 320), (aux_sym_temp_var_decls_token1, 322),
     (aux_sym_external_var_decls_token1, 324), (aux_sym_global_var_decls_token1, 326),
     (aux_sym_fb_decl_token4, 890), (aux_sym_method_decl_token1, 330),
     (aux_sym_prog_access_decls_token1, 332), (aux_sym_initial_step_token1, 334),
     (aux_sym_config_init_token1, 336), (aux_sym_using_directive_token1, 338),
     (aux_sym__stmt_token1, 340), (aux_sym__stmt_token2, 340), (aux_sym__stmt_token3, 340),
     (aux_sym_if_stmt_token1, 342), (aux_sym_case_stmt_token1, 344), (aux_sym_for_stmt_token1, 346),
     (aux_sym_while_stmt_token1, 348), (aux_sym_repeat_stmt_token1, 350),
     (aux_sym_raise_stmt_token1, 352), (aux_sym_try_stmt_token1, 354),
     (aux_sym_try_stmt_token2, 356), (aux_sym_catch_clause_token1, 356),
     (aux_sym_finally_clause_token1, 356), (sym_ld_rung, 358), (sym_fbd_network, 360),
     (sym_c_style_comment, 3), (sym_pascal_style_comment, 3), (sym_pragma, 3)]"

lemma ts_parse_row_280_scan: "row_scan tokens_63_2 0 ts_parse_row_280 = Some (Suc (Suc (Suc (Suc 0))))"
  unfolding ts_parse_row_280_def by simp

text \<open>Lines 86890 to 87005.\<close>

definition ts_parse_row_281 :: parse_row where
  "ts_parse_row_281 =
    [(sym_ERR_assign_func_call, 7530), (sym_ERR_unexpected_this_in_path, 2372),
     (sym_ERR_unexpected_super_in_path, 2372), (sym_ERR_fb_variables_after_method, 1308),
     (sym_ERR_var_access_not_allowed, 3160), (sym_ERR_var_config_not_allowed, 3160),
     (sym_ERR_var_global_not_allowed, 3160), (sym_ERR_method_decl_in_body, 3150),
     (sym_extern_pragma, 7490), (sym_wasm_pragma, 3150), (sym_warn_pragma, 7490),
     (sym_allow_pragma, 3140), (sym_test_pragma, 7490), (sym_once_pragma, 7490),
     (sym_must_call_pragma, 7490), (sym_export_pragma, 7490), (sym_pou_pragma, 7194),
     (sym_direct_variable, 7675), (sym_deref_expression, 2373), (sym_variable, 7599),
     (sym_var_access, 2373), (sym_in_out_decls, 3160), (sym_var_decls, 3160),
     (sym_retain_var_decls, 3160), (sym_temp_var_decls, 3160), (sym_external_var_decls, 3160),
     (sym_global_var_decls, 2947), (sym_loc_partly_var_decl, 3160), (sym__fb_variables, 728),
     (sym_fb_input_decls, 3160), (sym_fb_output_decls, 3160), (sym_no_retain_var_decls, 3160),
     (sym_fb_body, 10091), (sym_method_decl, 729), (sym_prog_access_decls, 3043), (sym_SFC, 7970),
     (sym_SFC_network, 7612), (sym_initial_step, 7439), (sym_config_init, 3047),
     (sym_using_directive, 2991), (sym_variable_access, 7530), (sym_func_call, 2961),
     (sym_stmt_list, 7970), (sym__stmt, 2024), (sym_assign, 3150), (sym_if_stmt, 3150),
     (sym_case_stmt, 3150), (sym_for_stmt, 3150), (sym_while_stmt, 3150), (sym_repeat_stmt, 3150),
     (sym_raise_stmt, 3150), (sym_try_stmt, 3150), (sym_ERR_clause_outside_try, 3150),
     (sym_begin_path_expression, 2943), (sym_invocation, 2934), (sym_any_invocation, 2935),
     (sym_this_invocation, 2641), (sym_super_invocation, 2641), (sym_super_body_invocation, 2935),
     (sym_path_expression, 2627), (sym_field_expression, 2373), (sym_index_expression, 2373),
     (sym_ladder_diagram, 7970), (sym_fb_diagram, 7970),
     (aux_sym_ERR_fb_variables_after_method_repeat1, 728), (aux_sym_func_decl_repeat1, 7194),
     (aux_sym_func_decl_repeat2, 2991), (aux_sym_fb_decl_repeat3, 729), (aux_sym_SFC_repeat1, 7612),
     (aux_sym_stmt_list_repeat1, 2024), (aux_sym_ladder_diagram_repeat1, 8009),
     (aux_sym_fb_diagram_repeat1, 8013), (sym_identifier, 298),
     (aux_sym_ERR_unexpected_this_in_path_token1, 304),
     (aux_sym_ERR_unexpected_super_in_path_token1, 306), (sym_line_comment, 3),
     (anon_sym_LBRACE, 308), (aux_sym_test_pragma_token1, 9), (aux_sym_once_pragma_token1, 11),
     (aux_sym_must_call_pragma_token1, 13), (aux_sym_export_pragma_token1, 15),
     (anon_sym_SEMI, 310), (anon_sym_PERCENT, 312), (aux_sym_input_decls_token1, 314),
     (aux_sym_output_decls_token1, 316), (aux_sym_in_out_decls_token1, 318),
     (aux_sym_var_decls_token1, 320), (aux_sym_temp_var_decls_token1, 322),
     (aux_sym_external_var_decls_token1, 324), (aux_sym_global_var_decls_token1, 326),
     (aux_sym_fb_decl_token4, 892), (aux_sym_method_decl_token1, 330),
     (aux_sym_prog_access_decls_token1, 332), (aux_sym_initial_step_token1, 334),
     (aux_sym_config_init_token1, 336), (aux_sym_using_directive_token1, 338),
     (aux_sym__stmt_token1, 340), (aux_sym__stmt_token2, 340), (aux_sym__stmt_token3, 340),
     (aux_sym_if_stmt_token1, 342), (aux_sym_case_stmt_token1, 344), (aux_sym_for_stmt_token1, 346),
     (aux_sym_while_stmt_token1, 348), (aux_sym_repeat_stmt_token1, 350),
     (aux_sym_raise_stmt_token1, 352), (aux_sym_try_stmt_token1, 354),
     (aux_sym_try_stmt_token2, 356), (aux_sym_catch_clause_token1, 356),
     (aux_sym_finally_clause_token1, 356), (sym_ld_rung, 358), (sym_fbd_network, 360),
     (sym_c_style_comment, 3), (sym_pascal_style_comment, 3), (sym_pragma, 3)]"

lemma ts_parse_row_281_scan: "row_scan tokens_63_2 0 ts_parse_row_281 = Some (Suc (Suc (Suc (Suc 0))))"
  unfolding ts_parse_row_281_def by simp

text \<open>Lines 87006 to 87121.\<close>

definition ts_parse_row_282 :: parse_row where
  "ts_parse_row_282 =
    [(sym_ERR_assign_func_call, 7530), (sym_ERR_unexpected_this_in_path, 2372),
     (sym_ERR_unexpected_super_in_path, 2372), (sym_ERR_fb_variables_after_method, 1884),
     (sym_ERR_var_access_not_allowed, 3160), (sym_ERR_var_config_not_allowed, 3160),
     (sym_ERR_var_global_not_allowed, 3160), (sym_ERR_method_decl_in_body, 3150),
     (sym_extern_pragma, 7490), (sym_wasm_pragma, 3150), (sym_warn_pragma, 7490),
     (sym_allow_pragma, 3140), (sym_test_pragma, 7490), (sym_once_pragma, 7490),
     (sym_must_call_pragma, 7490), (sym_export_pragma, 7490), (sym_pou_pragma, 7194),
     (sym_direct_variable, 7675), (sym_deref_expression, 2373), (sym_variable, 7599),
     (sym_var_access, 2373), (sym_in_out_decls, 3160), (sym_var_decls, 3160),
     (sym_retain_var_decls, 3160), (sym_temp_var_decls, 3160), (sym_external_var_decls, 3160),
     (sym_global_var_decls, 2947), (sym_loc_partly_var_decl, 3160), (sym__fb_variables, 390),
     (sym_fb_input_decls, 3160), (sym_fb_output_decls, 3160), (sym_no_retain_var_decls, 3160),
     (sym_fb_body, 8455), (sym_method_decl, 391), (sym_prog_access_decls, 3043), (sym_SFC, 7970),
     (sym_SFC_network, 7612), (sym_initial_step, 7439), (sym_config_init, 3047),
     (sym_using_directive, 2991), (sym_variable_access, 7530), (sym_func_call, 2961),
     (sym_stmt_list, 7970), (sym__stmt, 2024), (sym_assign, 3150), (sym_if_stmt, 3150),
     (sym_case_stmt, 3150), (sym_for_stmt, 3150), (sym_while_stmt, 3150), (sym_repeat_stmt, 3150),
     (sym_raise_stmt, 3150), (sym_try_stmt, 3150), (sym_ERR_clause_outside_try, 3150),
     (sym_begin_path_expression, 2943), (sym_invocation, 2934), (sym_any_invocation, 2935),
     (sym_this_invocation, 2641), (sym_super_invocation, 2641), (sym_super_body_invocation, 2935),
     (sym_path_expression, 2627), (sym_field_expression, 2373), (sym_index_expression, 2373),
     (sym_ladder_diagram, 7970), (sym_fb_diagram, 7970),
     (aux_sym_ERR_fb_variables_after_method_repeat1, 390), (aux_sym_func_decl_repeat1, 7194),
     (aux_sym_func_decl_repeat2, 2991), (aux_sym_fb_decl_repeat3, 391), (aux_sym_SFC_repeat1, 7612),
     (aux_sym_stmt_list_repeat1, 2024), (aux_sym_ladder_diagram_repeat1, 8009),
     (aux_sym_fb_diagram_repeat1, 8013), (sym_identifier, 298),
     (aux_sym_ERR_unexpected_this_in_path_token1, 304),
     (aux_sym_ERR_unexpected_super_in_path_token1, 306), (sym_line_comment, 3),
     (anon_sym_LBRACE, 308), (aux_sym_test_pragma_token1, 9), (aux_sym_once_pragma_token1, 11),
     (aux_sym_must_call_pragma_token1, 13), (aux_sym_export_pragma_token1, 15),
     (anon_sym_SEMI, 310), (anon_sym_PERCENT, 312), (aux_sym_input_decls_token1, 314),
     (aux_sym_output_decls_token1, 316), (aux_sym_in_out_decls_token1, 318),
     (aux_sym_var_decls_token1, 320), (aux_sym_temp_var_decls_token1, 322),
     (aux_sym_external_var_decls_token1, 324), (aux_sym_global_var_decls_token1, 326),
     (aux_sym_fb_decl_token4, 894), (aux_sym_method_decl_token1, 330),
     (aux_sym_prog_access_decls_token1, 332), (aux_sym_initial_step_token1, 334),
     (aux_sym_config_init_token1, 336), (aux_sym_using_directive_token1, 338),
     (aux_sym__stmt_token1, 340), (aux_sym__stmt_token2, 340), (aux_sym__stmt_token3, 340),
     (aux_sym_if_stmt_token1, 342), (aux_sym_case_stmt_token1, 344), (aux_sym_for_stmt_token1, 346),
     (aux_sym_while_stmt_token1, 348), (aux_sym_repeat_stmt_token1, 350),
     (aux_sym_raise_stmt_token1, 352), (aux_sym_try_stmt_token1, 354),
     (aux_sym_try_stmt_token2, 356), (aux_sym_catch_clause_token1, 356),
     (aux_sym_finally_clause_token1, 356), (sym_ld_rung, 358), (sym_fbd_network, 360),
     (sym_c_style_comment, 3), (sym_pascal_style_comment, 3), (sym_pragma, 3)]"

lemma ts_parse_row_282_scan: "row_scan tokens_63_2 0 ts_parse_row_282 = Some (Suc (Suc (Suc (Suc 0))))"
  unfolding ts_parse_row_282_def by simp

text \<open>Lines 87122 to 87237.\<close>

definition ts_parse_row_283 :: parse_row where
  "ts_parse_row_283 =
    [(sym_ERR_assign_func_call, 7530), (sym_ERR_unexpected_this_in_path, 2372),
     (sym_ERR_unexpected_super_in_path, 2372), (sym_ERR_fb_variables_after_method, 1305),
     (sym_ERR_var_access_not_allowed, 3160), (sym_ERR_var_config_not_allowed, 3160),
     (sym_ERR_var_global_not_allowed, 3160), (sym_ERR_method_decl_in_body, 3150),
     (sym_extern_pragma, 7490), (sym_wasm_pragma, 3150), (sym_warn_pragma, 7490),
     (sym_allow_pragma, 3140), (sym_test_pragma, 7490), (sym_once_pragma, 7490),
     (sym_must_call_pragma, 7490), (sym_export_pragma, 7490), (sym_pou_pragma, 7194),
     (sym_direct_variable, 7675), (sym_deref_expression, 2373), (sym_variable, 7599),
     (sym_var_access, 2373), (sym_in_out_decls, 3160), (sym_var_decls, 3160),
     (sym_retain_var_decls, 3160), (sym_temp_var_decls, 3160), (sym_external_var_decls, 3160),
     (sym_global_var_decls, 2947), (sym_loc_partly_var_decl, 3160), (sym__fb_variables, 557),
     (sym_fb_input_decls, 3160), (sym_fb_output_decls, 3160), (sym_no_retain_var_decls, 3160),
     (sym_fb_body, 9770), (sym_method_decl, 558), (sym_prog_access_decls, 3043), (sym_SFC, 7970),
     (sym_SFC_network, 7612), (sym_initial_step, 7439), (sym_config_init, 3047),
     (sym_using_directive, 2991), (sym_variable_access, 7530), (sym_func_call, 2961),
     (sym_stmt_list, 7970), (sym__stmt, 2024), (sym_assign, 3150), (sym_if_stmt, 3150),
     (sym_case_stmt, 3150), (sym_for_stmt, 3150), (sym_while_stmt, 3150), (sym_repeat_stmt, 3150),
     (sym_raise_stmt, 3150), (sym_try_stmt, 3150), (sym_ERR_clause_outside_try, 3150),
     (sym_begin_path_expression, 2943), (sym_invocation, 2934), (sym_any_invocation, 2935),
     (sym_this_invocation, 2641), (sym_super_invocation, 2641), (sym_super_body_invocation, 2935),
     (sym_path_expression, 2627), (sym_field_expression, 2373), (sym_index_expression, 2373),
     (sym_ladder_diagram, 7970), (sym_fb_diagram, 7970),
     (aux_sym_ERR_fb_variables_after_method_repeat1, 557), (aux_sym_func_decl_repeat1, 7194),
     (aux_sym_func_decl_repeat2, 2991), (aux_sym_fb_decl_repeat3, 558), (aux_sym_SFC_repeat1, 7612),
     (aux_sym_stmt_list_repeat1, 2024), (aux_sym_ladder_diagram_repeat1, 8009),
     (aux_sym_fb_diagram_repeat1, 8013), (sym_identifier, 298),
     (aux_sym_ERR_unexpected_this_in_path_token1, 304),
     (aux_sym_ERR_unexpected_super_in_path_token1, 306), (sym_line_comment, 3),
     (anon_sym_LBRACE, 308), (aux_sym_test_pragma_token1, 9), (aux_sym_once_pragma_token1, 11),
     (aux_sym_must_call_pragma_token1, 13), (aux_sym_export_pragma_token1, 15),
     (anon_sym_SEMI, 310), (anon_sym_PERCENT, 312), (aux_sym_input_decls_token1, 314),
     (aux_sym_output_decls_token1, 316), (aux_sym_in_out_decls_token1, 318),
     (aux_sym_var_decls_token1, 320), (aux_sym_temp_var_decls_token1, 322),
     (aux_sym_external_var_decls_token1, 324), (aux_sym_global_var_decls_token1, 326),
     (aux_sym_fb_decl_token4, 896), (aux_sym_method_decl_token1, 330),
     (aux_sym_prog_access_decls_token1, 332), (aux_sym_initial_step_token1, 334),
     (aux_sym_config_init_token1, 336), (aux_sym_using_directive_token1, 338),
     (aux_sym__stmt_token1, 340), (aux_sym__stmt_token2, 340), (aux_sym__stmt_token3, 340),
     (aux_sym_if_stmt_token1, 342), (aux_sym_case_stmt_token1, 344), (aux_sym_for_stmt_token1, 346),
     (aux_sym_while_stmt_token1, 348), (aux_sym_repeat_stmt_token1, 350),
     (aux_sym_raise_stmt_token1, 352), (aux_sym_try_stmt_token1, 354),
     (aux_sym_try_stmt_token2, 356), (aux_sym_catch_clause_token1, 356),
     (aux_sym_finally_clause_token1, 356), (sym_ld_rung, 358), (sym_fbd_network, 360),
     (sym_c_style_comment, 3), (sym_pascal_style_comment, 3), (sym_pragma, 3)]"

lemma ts_parse_row_283_scan: "row_scan tokens_63_2 0 ts_parse_row_283 = Some (Suc (Suc (Suc (Suc 0))))"
  unfolding ts_parse_row_283_def by simp

text \<open>Lines 87238 to 87353.\<close>

definition ts_parse_row_284 :: parse_row where
  "ts_parse_row_284 =
    [(sym_ERR_assign_func_call, 7530), (sym_ERR_unexpected_this_in_path, 2372),
     (sym_ERR_unexpected_super_in_path, 2372), (sym_ERR_fb_variables_after_method, 1775),
     (sym_ERR_var_access_not_allowed, 3160), (sym_ERR_var_config_not_allowed, 3160),
     (sym_ERR_var_global_not_allowed, 3160), (sym_ERR_method_decl_in_body, 3150),
     (sym_extern_pragma, 7490), (sym_wasm_pragma, 3150), (sym_warn_pragma, 7490),
     (sym_allow_pragma, 3140), (sym_test_pragma, 7490), (sym_once_pragma, 7490),
     (sym_must_call_pragma, 7490), (sym_export_pragma, 7490), (sym_pou_pragma, 7194),
     (sym_direct_variable, 7675), (sym_deref_expression, 2373), (sym_variable, 7599),
     (sym_var_access, 2373), (sym_in_out_decls, 3160), (sym_var_decls, 3160),
     (sym_retain_var_decls, 3160), (sym_temp_var_decls, 3160), (sym_external_var_decls, 3160),
     (sym_global_var_decls, 2947), (sym_loc_partly_var_decl, 3160), (sym__fb_variables, 383),
     (sym_fb_input_decls, 3160), (sym_fb_output_decls, 3160), (sym_no_retain_var_decls, 3160),
     (sym_fb_body, 9384), (sym_method_decl, 384), (sym_prog_access_decls, 3043), (sym_SFC, 7970),
     (sym_SFC_network, 7612), (sym_initial_step, 7439), (sym_config_init, 3047),
     (sym_using_directive, 2991), (sym_variable_access, 7530), (sym_func_call, 2961),
     (sym_stmt_list, 7970), (sym__stmt, 2024), (sym_assign, 3150), (sym_if_stmt, 3150),
     (sym_case_stmt, 3150), (sym_for_stmt, 3150), (sym_while_stmt, 3150), (sym_repeat_stmt, 3150),
     (sym_raise_stmt, 3150), (sym_try_stmt, 3150), (sym_ERR_clause_outside_try, 3150),
     (sym_begin_path_expression, 2943), (sym_invocation, 2934), (sym_any_invocation, 2935),
     (sym_this_invocation, 2641), (sym_super_invocation, 2641), (sym_super_body_invocation, 2935),
     (sym_path_expression, 2627), (sym_field_expression, 2373), (sym_index_expression, 2373),
     (sym_ladder_diagram, 7970), (sym_fb_diagram, 7970),
     (aux_sym_ERR_fb_variables_after_method_repeat1, 383), (aux_sym_func_decl_repeat1, 7194),
     (aux_sym_func_decl_repeat2, 2991), (aux_sym_fb_decl_repeat3, 384), (aux_sym_SFC_repeat1, 7612),
     (aux_sym_stmt_list_repeat1, 2024), (aux_sym_ladder_diagram_repeat1, 8009),
     (aux_sym_fb_diagram_repeat1, 8013), (sym_identifier, 298),
     (aux_sym_ERR_unexpected_this_in_path_token1, 304),
     (aux_sym_ERR_unexpected_super_in_path_token1, 306), (sym_line_comment, 3),
     (anon_sym_LBRACE, 308), (aux_sym_test_pragma_token1, 9), (aux_sym_once_pragma_token1, 11),
     (aux_sym_must_call_pragma_token1, 13), (aux_sym_export_pragma_token1, 15),
     (anon_sym_SEMI, 310), (anon_sym_PERCENT, 312), (aux_sym_input_decls_token1, 314),
     (aux_sym_output_decls_token1, 316), (aux_sym_in_out_decls_token1, 318),
     (aux_sym_var_decls_token1, 320), (aux_sym_temp_var_decls_token1, 322),
     (aux_sym_external_var_decls_token1, 324), (aux_sym_global_var_decls_token1, 326),
     (aux_sym_fb_decl_token4, 898), (aux_sym_method_decl_token1, 330),
     (aux_sym_prog_access_decls_token1, 332), (aux_sym_initial_step_token1, 334),
     (aux_sym_config_init_token1, 336), (aux_sym_using_directive_token1, 338),
     (aux_sym__stmt_token1, 340), (aux_sym__stmt_token2, 340), (aux_sym__stmt_token3, 340),
     (aux_sym_if_stmt_token1, 342), (aux_sym_case_stmt_token1, 344), (aux_sym_for_stmt_token1, 346),
     (aux_sym_while_stmt_token1, 348), (aux_sym_repeat_stmt_token1, 350),
     (aux_sym_raise_stmt_token1, 352), (aux_sym_try_stmt_token1, 354),
     (aux_sym_try_stmt_token2, 356), (aux_sym_catch_clause_token1, 356),
     (aux_sym_finally_clause_token1, 356), (sym_ld_rung, 358), (sym_fbd_network, 360),
     (sym_c_style_comment, 3), (sym_pascal_style_comment, 3), (sym_pragma, 3)]"

lemma ts_parse_row_284_scan: "row_scan tokens_63_2 0 ts_parse_row_284 = Some (Suc (Suc (Suc (Suc 0))))"
  unfolding ts_parse_row_284_def by simp

text \<open>Lines 87354 to 87469.\<close>

definition ts_parse_row_285 :: parse_row where
  "ts_parse_row_285 =
    [(sym_ERR_assign_func_call, 7530), (sym_ERR_unexpected_this_in_path, 2372),
     (sym_ERR_unexpected_super_in_path, 2372), (sym_ERR_fb_variables_after_method, 1252),
     (sym_ERR_var_access_not_allowed, 3160), (sym_ERR_var_config_not_allowed, 3160),
     (sym_ERR_var_global_not_allowed, 3160), (sym_ERR_method_decl_in_body, 3150),
     (sym_extern_pragma, 7490), (sym_wasm_pragma, 3150), (sym_warn_pragma, 7490),
     (sym_allow_pragma, 3140), (sym_test_pragma, 7490), (sym_once_pragma, 7490),
     (sym_must_call_pragma, 7490), (sym_export_pragma, 7490), (sym_pou_pragma, 7194),
     (sym_direct_variable, 7675), (sym_deref_expression, 2373), (sym_variable, 7599),
     (sym_var_access, 2373), (sym_in_out_decls, 3160), (sym_var_decls, 3160),
     (sym_retain_var_decls, 3160), (sym_temp_var_decls, 3160), (sym_external_var_decls, 3160),
     (sym_global_var_decls, 2947), (sym_loc_partly_var_decl, 3160), (sym__fb_variables, 604),
     (sym_fb_input_decls, 3160), (sym_fb_output_decls, 3160), (sym_no_retain_var_decls, 3160),
     (sym_fb_body, 9584), (sym_method_decl, 605), (sym_prog_access_decls, 3043), (sym_SFC, 7970),
     (sym_SFC_network, 7612), (sym_initial_step, 7439), (sym_config_init, 3047),
     (sym_using_directive, 2991), (sym_variable_access, 7530), (sym_func_call, 2961),
     (sym_stmt_list, 7970), (sym__stmt, 2024), (sym_assign, 3150), (sym_if_stmt, 3150),
     (sym_case_stmt, 3150), (sym_for_stmt, 3150), (sym_while_stmt, 3150), (sym_repeat_stmt, 3150),
     (sym_raise_stmt, 3150), (sym_try_stmt, 3150), (sym_ERR_clause_outside_try, 3150),
     (sym_begin_path_expression, 2943), (sym_invocation, 2934), (sym_any_invocation, 2935),
     (sym_this_invocation, 2641), (sym_super_invocation, 2641), (sym_super_body_invocation, 2935),
     (sym_path_expression, 2627), (sym_field_expression, 2373), (sym_index_expression, 2373),
     (sym_ladder_diagram, 7970), (sym_fb_diagram, 7970),
     (aux_sym_ERR_fb_variables_after_method_repeat1, 604), (aux_sym_func_decl_repeat1, 7194),
     (aux_sym_func_decl_repeat2, 2991), (aux_sym_fb_decl_repeat3, 605), (aux_sym_SFC_repeat1, 7612),
     (aux_sym_stmt_list_repeat1, 2024), (aux_sym_ladder_diagram_repeat1, 8009),
     (aux_sym_fb_diagram_repeat1, 8013), (sym_identifier, 298),
     (aux_sym_ERR_unexpected_this_in_path_token1, 304),
     (aux_sym_ERR_unexpected_super_in_path_token1, 306), (sym_line_comment, 3),
     (anon_sym_LBRACE, 308), (aux_sym_test_pragma_token1, 9), (aux_sym_once_pragma_token1, 11),
     (aux_sym_must_call_pragma_token1, 13), (aux_sym_export_pragma_token1, 15),
     (anon_sym_SEMI, 310), (anon_sym_PERCENT, 312), (aux_sym_input_decls_token1, 314),
     (aux_sym_output_decls_token1, 316), (aux_sym_in_out_decls_token1, 318),
     (aux_sym_var_decls_token1, 320), (aux_sym_temp_var_decls_token1, 322),
     (aux_sym_external_var_decls_token1, 324), (aux_sym_global_var_decls_token1, 326),
     (aux_sym_fb_decl_token4, 900), (aux_sym_method_decl_token1, 330),
     (aux_sym_prog_access_decls_token1, 332), (aux_sym_initial_step_token1, 334),
     (aux_sym_config_init_token1, 336), (aux_sym_using_directive_token1, 338),
     (aux_sym__stmt_token1, 340), (aux_sym__stmt_token2, 340), (aux_sym__stmt_token3, 340),
     (aux_sym_if_stmt_token1, 342), (aux_sym_case_stmt_token1, 344), (aux_sym_for_stmt_token1, 346),
     (aux_sym_while_stmt_token1, 348), (aux_sym_repeat_stmt_token1, 350),
     (aux_sym_raise_stmt_token1, 352), (aux_sym_try_stmt_token1, 354),
     (aux_sym_try_stmt_token2, 356), (aux_sym_catch_clause_token1, 356),
     (aux_sym_finally_clause_token1, 356), (sym_ld_rung, 358), (sym_fbd_network, 360),
     (sym_c_style_comment, 3), (sym_pascal_style_comment, 3), (sym_pragma, 3)]"

lemma ts_parse_row_285_scan: "row_scan tokens_63_2 0 ts_parse_row_285 = Some (Suc (Suc (Suc (Suc 0))))"
  unfolding ts_parse_row_285_def by simp

text \<open>Lines 87470 to 87585.\<close>

definition ts_parse_row_286 :: parse_row where
  "ts_parse_row_286 =
    [(sym_ERR_assign_func_call, 7530), (sym_ERR_unexpected_this_in_path, 2372),
     (sym_ERR_unexpected_super_in_path, 2372), (sym_ERR_fb_variables_after_method, 1311),
     (sym_ERR_var_access_not_allowed, 3160), (sym_ERR_var_config_not_allowed, 3160),
     (sym_ERR_var_global_not_allowed, 3160), (sym_ERR_method_decl_in_body, 3150),
     (sym_extern_pragma, 7490), (sym_wasm_pragma, 3150), (sym_warn_pragma, 7490),
     (sym_allow_pragma, 3140), (sym_test_pragma, 7490), (sym_once_pragma, 7490),
     (sym_must_call_pragma, 7490), (sym_export_pragma, 7490), (sym_pou_pragma, 7194),
     (sym_direct_variable, 7675), (sym_deref_expression, 2373), (sym_variable, 7599),
     (sym_var_access, 2373), (sym_in_out_decls, 3160), (sym_var_decls, 3160),
     (sym_retain_var_decls, 3160), (sym_temp_var_decls, 3160), (sym_external_var_decls, 3160),
     (sym_global_var_decls, 2947), (sym_loc_partly_var_decl, 3160), (sym__fb_variables, 563),
     (sym_fb_input_decls, 3160), (sym_fb_output_decls, 3160), (sym_no_retain_var_decls, 3160),
     (sym_fb_body, 9803), (sym_method_decl, 564), (sym_prog_access_decls, 3043), (sym_SFC, 7970),
     (sym_SFC_network, 7612), (sym_initial_step, 7439), (sym_config_init, 3047),
     (sym_using_directive, 2991), (sym_variable_access, 7530), (sym_func_call, 2961),
     (sym_stmt_list, 7970), (sym__stmt, 2024), (sym_assign, 3150), (sym_if_stmt, 3150),
     (sym_case_stmt, 3150), (sym_for_stmt, 3150), (sym_while_stmt, 3150), (sym_repeat_stmt, 3150),
     (sym_raise_stmt, 3150), (sym_try_stmt, 3150), (sym_ERR_clause_outside_try, 3150),
     (sym_begin_path_expression, 2943), (sym_invocation, 2934), (sym_any_invocation, 2935),
     (sym_this_invocation, 2641), (sym_super_invocation, 2641), (sym_super_body_invocation, 2935),
     (sym_path_expression, 2627), (sym_field_expression, 2373), (sym_index_expression, 2373),
     (sym_ladder_diagram, 7970), (sym_fb_diagram, 7970),
     (aux_sym_ERR_fb_variables_after_method_repeat1, 563), (aux_sym_func_decl_repeat1, 7194),
     (aux_sym_func_decl_repeat2, 2991), (aux_sym_fb_decl_repeat3, 564), (aux_sym_SFC_repeat1, 7612),
     (aux_sym_stmt_list_repeat1, 2024), (aux_sym_ladder_diagram_repeat1, 8009),
     (aux_sym_fb_diagram_repeat1, 8013), (sym_identifier, 298),
     (aux_sym_ERR_unexpected_this_in_path_token1, 304),
     (aux_sym_ERR_unexpected_super_in_path_token1, 306), (sym_line_comment, 3),
     (anon_sym_LBRACE, 308), (aux_sym_test_pragma_token1, 9), (aux_sym_once_pragma_token1, 11),
     (aux_sym_must_call_pragma_token1, 13), (aux_sym_export_pragma_token1, 15),
     (anon_sym_SEMI, 310), (anon_sym_PERCENT, 312), (aux_sym_input_decls_token1, 314),
     (aux_sym_output_decls_token1, 316), (aux_sym_in_out_decls_token1, 318),
     (aux_sym_var_decls_token1, 320), (aux_sym_temp_var_decls_token1, 322),
     (aux_sym_external_var_decls_token1, 324), (aux_sym_global_var_decls_token1, 326),
     (aux_sym_fb_decl_token4, 902), (aux_sym_method_decl_token1, 330),
     (aux_sym_prog_access_decls_token1, 332), (aux_sym_initial_step_token1, 334),
     (aux_sym_config_init_token1, 336), (aux_sym_using_directive_token1, 338),
     (aux_sym__stmt_token1, 340), (aux_sym__stmt_token2, 340), (aux_sym__stmt_token3, 340),
     (aux_sym_if_stmt_token1, 342), (aux_sym_case_stmt_token1, 344), (aux_sym_for_stmt_token1, 346),
     (aux_sym_while_stmt_token1, 348), (aux_sym_repeat_stmt_token1, 350),
     (aux_sym_raise_stmt_token1, 352), (aux_sym_try_stmt_token1, 354),
     (aux_sym_try_stmt_token2, 356), (aux_sym_catch_clause_token1, 356),
     (aux_sym_finally_clause_token1, 356), (sym_ld_rung, 358), (sym_fbd_network, 360),
     (sym_c_style_comment, 3), (sym_pascal_style_comment, 3), (sym_pragma, 3)]"

lemma ts_parse_row_286_scan: "row_scan tokens_63_2 0 ts_parse_row_286 = Some (Suc (Suc (Suc (Suc 0))))"
  unfolding ts_parse_row_286_def by simp

text \<open>Lines 87586 to 87701.\<close>

definition ts_parse_row_287 :: parse_row where
  "ts_parse_row_287 =
    [(sym_ERR_assign_func_call, 7530), (sym_ERR_unexpected_this_in_path, 2372),
     (sym_ERR_unexpected_super_in_path, 2372), (sym_ERR_fb_variables_after_method, 1889),
     (sym_ERR_var_access_not_allowed, 3160), (sym_ERR_var_config_not_allowed, 3160),
     (sym_ERR_var_global_not_allowed, 3160), (sym_ERR_method_decl_in_body, 3150),
     (sym_extern_pragma, 7490), (sym_wasm_pragma, 3150), (sym_warn_pragma, 7490),
     (sym_allow_pragma, 3140), (sym_test_pragma, 7490), (sym_once_pragma, 7490),
     (sym_must_call_pragma, 7490), (sym_export_pragma, 7490), (sym_pou_pragma, 7194),
     (sym_direct_variable, 7675), (sym_deref_expression, 2373), (sym_variable, 7599),
     (sym_var_access, 2373), (sym_in_out_decls, 3160), (sym_var_decls, 3160),
     (sym_retain_var_decls, 3160), (sym_temp_var_decls, 3160), (sym_external_var_decls, 3160),
     (sym_global_var_decls, 2947), (sym_loc_partly_var_decl, 3160), (sym__fb_variables, 405),
     (sym_fb_input_decls, 3160), (sym_fb_output_decls, 3160), (sym_no_retain_var_decls, 3160),
     (sym_fb_body, 8988), (sym_method_decl, 419), (sym_prog_access_decls, 3043), (sym_SFC, 7970),
     (sym_SFC_network, 7612), (sym_initial_step, 7439), (sym_config_init, 3047),
     (sym_using_directive, 2991), (sym_variable_access, 7530), (sym_func_call, 2961),
     (sym_stmt_list, 7970), (sym__stmt, 2024), (sym_assign, 3150), (sym_if_stmt, 3150),
     (sym_case_stmt, 3150), (sym_for_stmt, 3150), (sym_while_stmt, 3150), (sym_repeat_stmt, 3150),
     (sym_raise_stmt, 3150), (sym_try_stmt, 3150), (sym_ERR_clause_outside_try, 3150),
     (sym_begin_path_expression, 2943), (sym_invocation, 2934), (sym_any_invocation, 2935),
     (sym_this_invocation, 2641), (sym_super_invocation, 2641), (sym_super_body_invocation, 2935),
     (sym_path_expression, 2627), (sym_field_expression, 2373), (sym_index_expression, 2373),
     (sym_ladder_diagram, 7970), (sym_fb_diagram, 7970),
     (aux_sym_ERR_fb_variables_after_method_repeat1, 405), (aux_sym_func_decl_repeat1, 7194),
     (aux_sym_func_decl_repeat2, 2991), (aux_sym_fb_decl_repeat3, 419), (aux_sym_SFC_repeat1, 7612),
     (aux_sym_stmt_list_repeat1, 2024), (aux_sym_ladder_diagram_repeat1, 8009),
     (aux_sym_fb_diagram_repeat1, 8013), (sym_identifier, 298),
     (aux_sym_ERR_unexpected_this_in_path_token1, 304),
     (aux_sym_ERR_unexpected_super_in_path_token1, 306), (sym_line_comment, 3),
     (anon_sym_LBRACE, 308), (aux_sym_test_pragma_token1, 9), (aux_sym_once_pragma_token1, 11),
     (aux_sym_must_call_pragma_token1, 13), (aux_sym_export_pragma_token1, 15),
     (anon_sym_SEMI, 310), (anon_sym_PERCENT, 312), (aux_sym_input_decls_token1, 314),
     (aux_sym_output_decls_token1, 316), (aux_sym_in_out_decls_token1, 318),
     (aux_sym_var_decls_token1, 320), (aux_sym_temp_var_decls_token1, 322),
     (aux_sym_external_var_decls_token1, 324), (aux_sym_global_var_decls_token1, 326),
     (aux_sym_fb_decl_token4, 904), (aux_sym_method_decl_token1, 330),
     (aux_sym_prog_access_decls_token1, 332), (aux_sym_initial_step_token1, 334),
     (aux_sym_config_init_token1, 336), (aux_sym_using_directive_token1, 338),
     (aux_sym__stmt_token1, 340), (aux_sym__stmt_token2, 340), (aux_sym__stmt_token3, 340),
     (aux_sym_if_stmt_token1, 342), (aux_sym_case_stmt_token1, 344), (aux_sym_for_stmt_token1, 346),
     (aux_sym_while_stmt_token1, 348), (aux_sym_repeat_stmt_token1, 350),
     (aux_sym_raise_stmt_token1, 352), (aux_sym_try_stmt_token1, 354),
     (aux_sym_try_stmt_token2, 356), (aux_sym_catch_clause_token1, 356),
     (aux_sym_finally_clause_token1, 356), (sym_ld_rung, 358), (sym_fbd_network, 360),
     (sym_c_style_comment, 3), (sym_pascal_style_comment, 3), (sym_pragma, 3)]"

lemma ts_parse_row_287_scan: "row_scan tokens_63_2 0 ts_parse_row_287 = Some (Suc (Suc (Suc (Suc 0))))"
  unfolding ts_parse_row_287_def by simp

text \<open>Lines 87702 to 87817.\<close>

definition ts_parse_row_288 :: parse_row where
  "ts_parse_row_288 =
    [(sym_ERR_assign_func_call, 7530), (sym_ERR_unexpected_this_in_path, 2372),
     (sym_ERR_unexpected_super_in_path, 2372), (sym_ERR_fb_variables_after_method, 1449),
     (sym_ERR_var_access_not_allowed, 3160), (sym_ERR_var_config_not_allowed, 3160),
     (sym_ERR_var_global_not_allowed, 3160), (sym_ERR_method_decl_in_body, 3150),
     (sym_extern_pragma, 7490), (sym_wasm_pragma, 3150), (sym_warn_pragma, 7490),
     (sym_allow_pragma, 3140), (sym_test_pragma, 7490), (sym_once_pragma, 7490),
     (sym_must_call_pragma, 7490), (sym_export_pragma, 7490), (sym_pou_pragma, 7194),
     (sym_direct_variable, 7675), (sym_deref_expression, 2373), (sym_variable, 7599),
     (sym_var_access, 2373), (sym_in_out_decls, 3160), (sym_var_decls, 3160),
     (sym_retain_var_decls, 3160), (sym_temp_var_decls, 3160), (sym_external_var_decls, 3160),
     (sym_global_var_decls, 2947), (sym_loc_partly_var_decl, 3160), (sym__fb_variables, 445),
     (sym_fb_input_decls, 3160), (sym_fb_output_decls, 3160), (sym_no_retain_var_decls, 3160),
     (sym_fb_body, 9794), (sym_method_decl, 448), (sym_prog_access_decls, 3043), (sym_SFC, 7970),
     (sym_SFC_network, 7612), (sym_initial_step, 7439), (sym_config_init, 3047),
     (sym_using_directive, 2991), (sym_variable_access, 7530), (sym_func_call, 2961),
     (sym_stmt_list, 7970), (sym__stmt, 2024), (sym_assign, 3150), (sym_if_stmt, 3150),
     (sym_case_stmt, 3150), (sym_for_stmt, 3150), (sym_while_stmt, 3150), (sym_repeat_stmt, 3150),
     (sym_raise_stmt, 3150), (sym_try_stmt, 3150), (sym_ERR_clause_outside_try, 3150),
     (sym_begin_path_expression, 2943), (sym_invocation, 2934), (sym_any_invocation, 2935),
     (sym_this_invocation, 2641), (sym_super_invocation, 2641), (sym_super_body_invocation, 2935),
     (sym_path_expression, 2627), (sym_field_expression, 2373), (sym_index_expression, 2373),
     (sym_ladder_diagram, 7970), (sym_fb_diagram, 7970),
     (aux_sym_ERR_fb_variables_after_method_repeat1, 445), (aux_sym_func_decl_repeat1, 7194),
     (aux_sym_func_decl_repeat2, 2991), (aux_sym_fb_decl_repeat3, 448), (aux_sym_SFC_repeat1, 7612),
     (aux_sym_stmt_list_repeat1, 2024), (aux_sym_ladder_diagram_repeat1, 8009),
     (aux_sym_fb_diagram_repeat1, 8013), (sym_identifier, 298),
     (aux_sym_ERR_unexpected_this_in_path_token1, 304),
     (aux_sym_ERR_unexpected_super_in_path_token1, 306), (sym_line_comment, 3),
     (anon_sym_LBRACE, 308), (aux_sym_test_pragma_token1, 9), (aux_sym_once_pragma_token1, 11),
     (aux_sym_must_call_pragma_token1, 13), (aux_sym_export_pragma_token1, 15),
     (anon_sym_SEMI, 310), (anon_sym_PERCENT, 312), (aux_sym_input_decls_token1, 314),
     (aux_sym_output_decls_token1, 316), (aux_sym_in_out_decls_token1, 318),
     (aux_sym_var_decls_token1, 320), (aux_sym_temp_var_decls_token1, 322),
     (aux_sym_external_var_decls_token1, 324), (aux_sym_global_var_decls_token1, 326),
     (aux_sym_fb_decl_token4, 906), (aux_sym_method_decl_token1, 330),
     (aux_sym_prog_access_decls_token1, 332), (aux_sym_initial_step_token1, 334),
     (aux_sym_config_init_token1, 336), (aux_sym_using_directive_token1, 338),
     (aux_sym__stmt_token1, 340), (aux_sym__stmt_token2, 340), (aux_sym__stmt_token3, 340),
     (aux_sym_if_stmt_token1, 342), (aux_sym_case_stmt_token1, 344), (aux_sym_for_stmt_token1, 346),
     (aux_sym_while_stmt_token1, 348), (aux_sym_repeat_stmt_token1, 350),
     (aux_sym_raise_stmt_token1, 352), (aux_sym_try_stmt_token1, 354),
     (aux_sym_try_stmt_token2, 356), (aux_sym_catch_clause_token1, 356),
     (aux_sym_finally_clause_token1, 356), (sym_ld_rung, 358), (sym_fbd_network, 360),
     (sym_c_style_comment, 3), (sym_pascal_style_comment, 3), (sym_pragma, 3)]"

lemma ts_parse_row_288_scan: "row_scan tokens_63_2 0 ts_parse_row_288 = Some (Suc (Suc (Suc (Suc 0))))"
  unfolding ts_parse_row_288_def by simp

text \<open>Lines 87818 to 87933.\<close>

definition ts_parse_row_289 :: parse_row where
  "ts_parse_row_289 =
    [(sym_ERR_assign_func_call, 7530), (sym_ERR_unexpected_this_in_path, 2372),
     (sym_ERR_unexpected_super_in_path, 2372), (sym_ERR_fb_variables_after_method, 1929),
     (sym_ERR_var_access_not_allowed, 3160), (sym_ERR_var_config_not_allowed, 3160),
     (sym_ERR_var_global_not_allowed, 3160), (sym_ERR_method_decl_in_body, 3150),
     (sym_extern_pragma, 7490), (sym_wasm_pragma, 3150), (sym_warn_pragma, 7490),
     (sym_allow_pragma, 3140), (sym_test_pragma, 7490), (sym_once_pragma, 7490),
     (sym_must_call_pragma, 7490), (sym_export_pragma, 7490), (sym_pou_pragma, 7194),
     (sym_direct_variable, 7675), (sym_deref_expression, 2373), (sym_variable, 7599),
     (sym_var_access, 2373), (sym_in_out_decls, 3160), (sym_var_decls, 3160),
     (sym_retain_var_decls, 3160), (sym_temp_var_decls, 3160), (sym_external_var_decls, 3160),
     (sym_global_var_decls, 2947), (sym_loc_partly_var_decl, 3160), (sym__fb_variables, 450),
     (sym_fb_input_decls, 3160), (sym_fb_output_decls, 3160), (sym_no_retain_var_decls, 3160),
     (sym_fb_body, 9334), (sym_method_decl, 451), (sym_prog_access_decls, 3043), (sym_SFC, 7970),
     (sym_SFC_network, 7612), (sym_initial_step, 7439), (sym_config_init, 3047),
     (sym_using_directive, 2991), (sym_variable_access, 7530), (sym_func_call, 2961),
     (sym_stmt_list, 7970), (sym__stmt, 2024), (sym_assign, 3150), (sym_if_stmt, 3150),
     (sym_case_stmt, 3150), (sym_for_stmt, 3150), (sym_while_stmt, 3150), (sym_repeat_stmt, 3150),
     (sym_raise_stmt, 3150), (sym_try_stmt, 3150), (sym_ERR_clause_outside_try, 3150),
     (sym_begin_path_expression, 2943), (sym_invocation, 2934), (sym_any_invocation, 2935),
     (sym_this_invocation, 2641), (sym_super_invocation, 2641), (sym_super_body_invocation, 2935),
     (sym_path_expression, 2627), (sym_field_expression, 2373), (sym_index_expression, 2373),
     (sym_ladder_diagram, 7970), (sym_fb_diagram, 7970),
     (aux_sym_ERR_fb_variables_after_method_repeat1, 450), (aux_sym_func_decl_repeat1, 7194),
     (aux_sym_func_decl_repeat2, 2991), (aux_sym_fb_decl_repeat3, 451), (aux_sym_SFC_repeat1, 7612),
     (aux_sym_stmt_list_repeat1, 2024), (aux_sym_ladder_diagram_repeat1, 8009),
     (aux_sym_fb_diagram_repeat1, 8013), (sym_identifier, 298),
     (aux_sym_ERR_unexpected_this_in_path_token1, 304),
     (aux_sym_ERR_unexpected_super_in_path_token1, 306), (sym_line_comment, 3),
     (anon_sym_LBRACE, 308), (aux_sym_test_pragma_token1, 9), (aux_sym_once_pragma_token1, 11),
     (aux_sym_must_call_pragma_token1, 13), (aux_sym_export_pragma_token1, 15),
     (anon_sym_SEMI, 310), (anon_sym_PERCENT, 312), (aux_sym_input_decls_token1, 314),
     (aux_sym_output_decls_token1, 316), (aux_sym_in_out_decls_token1, 318),
     (aux_sym_var_decls_token1, 320), (aux_sym_temp_var_decls_token1, 322),
     (aux_sym_external_var_decls_token1, 324), (aux_sym_global_var_decls_token1, 326),
     (aux_sym_fb_decl_token4, 908), (aux_sym_method_decl_token1, 330),
     (aux_sym_prog_access_decls_token1, 332), (aux_sym_initial_step_token1, 334),
     (aux_sym_config_init_token1, 336), (aux_sym_using_directive_token1, 338),
     (aux_sym__stmt_token1, 340), (aux_sym__stmt_token2, 340), (aux_sym__stmt_token3, 340),
     (aux_sym_if_stmt_token1, 342), (aux_sym_case_stmt_token1, 344), (aux_sym_for_stmt_token1, 346),
     (aux_sym_while_stmt_token1, 348), (aux_sym_repeat_stmt_token1, 350),
     (aux_sym_raise_stmt_token1, 352), (aux_sym_try_stmt_token1, 354),
     (aux_sym_try_stmt_token2, 356), (aux_sym_catch_clause_token1, 356),
     (aux_sym_finally_clause_token1, 356), (sym_ld_rung, 358), (sym_fbd_network, 360),
     (sym_c_style_comment, 3), (sym_pascal_style_comment, 3), (sym_pragma, 3)]"

lemma ts_parse_row_289_scan: "row_scan tokens_63_2 0 ts_parse_row_289 = Some (Suc (Suc (Suc (Suc 0))))"
  unfolding ts_parse_row_289_def by simp

text \<open>Lines 87934 to 88049.\<close>

definition ts_parse_row_290 :: parse_row where
  "ts_parse_row_290 =
    [(sym_ERR_assign_func_call, 7530), (sym_ERR_unexpected_this_in_path, 2372),
     (sym_ERR_unexpected_super_in_path, 2372), (sym_ERR_fb_variables_after_method, 1917),
     (sym_ERR_var_access_not_allowed, 3160), (sym_ERR_var_config_not_allowed, 3160),
     (sym_ERR_var_global_not_allowed, 3160), (sym_ERR_method_decl_in_body, 3150),
     (sym_extern_pragma, 7490), (sym_wasm_pragma, 3150), (sym_warn_pragma, 7490),
     (sym_allow_pragma, 3140), (sym_test_pragma, 7490), (sym_once_pragma, 7490),
     (sym_must_call_pragma, 7490), (sym_export_pragma, 7490), (sym_pou_pragma, 7194),
     (sym_direct_variable, 7675), (sym_deref_expression, 2373), (sym_variable, 7599),
     (sym_var_access, 2373), (sym_in_out_decls, 3160), (sym_var_decls, 3160),
     (sym_retain_var_decls, 3160), (sym_temp_var_decls, 3160), (sym_external_var_decls, 3160),
     (sym_global_var_decls, 2947), (sym_loc_partly_var_decl, 3160), (sym__fb_variables, 341),
     (sym_fb_input_decls, 3160), (sym_fb_output_decls, 3160), (sym_no_retain_var_decls, 3160),
     (sym_fb_body, 8341), (sym_method_decl, 346), (sym_prog_access_decls, 3043), (sym_SFC, 7970),
     (sym_SFC_network, 7612), (sym_initial_step, 7439), (sym_config_init, 3047),
     (sym_using_directive, 2991), (sym_variable_access, 7530), (sym_func_call, 2961),
     (sym_stmt_list, 7970), (sym__stmt, 2024), (sym_assign, 3150), (sym_if_stmt, 3150),
     (sym_case_stmt, 3150), (sym_for_stmt, 3150), (sym_while_stmt, 3150), (sym_repeat_stmt, 3150),
     (sym_raise_stmt, 3150), (sym_try_stmt, 3150), (sym_ERR_clause_outside_try, 3150),
     (sym_begin_path_expression, 2943), (sym_invocation, 2934), (sym_any_invocation, 2935),
     (sym_this_invocation, 2641), (sym_super_invocation, 2641), (sym_super_body_invocation, 2935),
     (sym_path_expression, 2627), (sym_field_expression, 2373), (sym_index_expression, 2373),
     (sym_ladder_diagram, 7970), (sym_fb_diagram, 7970),
     (aux_sym_ERR_fb_variables_after_method_repeat1, 341), (aux_sym_func_decl_repeat1, 7194),
     (aux_sym_func_decl_repeat2, 2991), (aux_sym_fb_decl_repeat3, 346), (aux_sym_SFC_repeat1, 7612),
     (aux_sym_stmt_list_repeat1, 2024), (aux_sym_ladder_diagram_repeat1, 8009),
     (aux_sym_fb_diagram_repeat1, 8013), (sym_identifier, 298),
     (aux_sym_ERR_unexpected_this_in_path_token1, 304),
     (aux_sym_ERR_unexpected_super_in_path_token1, 306), (sym_line_comment, 3),
     (anon_sym_LBRACE, 308), (aux_sym_test_pragma_token1, 9), (aux_sym_once_pragma_token1, 11),
     (aux_sym_must_call_pragma_token1, 13), (aux_sym_export_pragma_token1, 15),
     (anon_sym_SEMI, 310), (anon_sym_PERCENT, 312), (aux_sym_input_decls_token1, 314),
     (aux_sym_output_decls_token1, 316), (aux_sym_in_out_decls_token1, 318),
     (aux_sym_var_decls_token1, 320), (aux_sym_temp_var_decls_token1, 322),
     (aux_sym_external_var_decls_token1, 324), (aux_sym_global_var_decls_token1, 326),
     (aux_sym_fb_decl_token4, 910), (aux_sym_method_decl_token1, 330),
     (aux_sym_prog_access_decls_token1, 332), (aux_sym_initial_step_token1, 334),
     (aux_sym_config_init_token1, 336), (aux_sym_using_directive_token1, 338),
     (aux_sym__stmt_token1, 340), (aux_sym__stmt_token2, 340), (aux_sym__stmt_token3, 340),
     (aux_sym_if_stmt_token1, 342), (aux_sym_case_stmt_token1, 344), (aux_sym_for_stmt_token1, 346),
     (aux_sym_while_stmt_token1, 348), (aux_sym_repeat_stmt_token1, 350),
     (aux_sym_raise_stmt_token1, 352), (aux_sym_try_stmt_token1, 354),
     (aux_sym_try_stmt_token2, 356), (aux_sym_catch_clause_token1, 356),
     (aux_sym_finally_clause_token1, 356), (sym_ld_rung, 358), (sym_fbd_network, 360),
     (sym_c_style_comment, 3), (sym_pascal_style_comment, 3), (sym_pragma, 3)]"

lemma ts_parse_row_290_scan: "row_scan tokens_63_2 0 ts_parse_row_290 = Some (Suc (Suc (Suc (Suc 0))))"
  unfolding ts_parse_row_290_def by simp

text \<open>Lines 88050 to 88165.\<close>

definition ts_parse_row_291 :: parse_row where
  "ts_parse_row_291 =
    [(sym_ERR_assign_func_call, 7530), (sym_ERR_unexpected_this_in_path, 2372),
     (sym_ERR_unexpected_super_in_path, 2372), (sym_ERR_fb_variables_after_method, 1318),
     (sym_ERR_var_access_not_allowed, 3160), (sym_ERR_var_config_not_allowed, 3160),
     (sym_ERR_var_global_not_allowed, 3160), (sym_ERR_method_decl_in_body, 3150),
     (sym_extern_pragma, 7490), (sym_wasm_pragma, 3150), (sym_warn_pragma, 7490),
     (sym_allow_pragma, 3140), (sym_test_pragma, 7490), (sym_once_pragma, 7490),
     (sym_must_call_pragma, 7490), (sym_export_pragma, 7490), (sym_pou_pragma, 7194),
     (sym_direct_variable, 7675), (sym_deref_expression, 2373), (sym_variable, 7599),
     (sym_var_access, 2373), (sym_in_out_decls, 3160), (sym_var_decls, 3160),
     (sym_retain_var_decls, 3160), (sym_temp_var_decls, 3160), (sym_external_var_decls, 3160),
     (sym_global_var_decls, 2947), (sym_loc_partly_var_decl, 3160), (sym__fb_variables, 570),
     (sym_fb_input_decls, 3160), (sym_fb_output_decls, 3160), (sym_no_retain_var_decls, 3160),
     (sym_fb_body, 9856), (sym_method_decl, 571), (sym_prog_access_decls, 3043), (sym_SFC, 7970),
     (sym_SFC_network, 7612), (sym_initial_step, 7439), (sym_config_init, 3047),
     (sym_using_directive, 2991), (sym_variable_access, 7530), (sym_func_call, 2961),
     (sym_stmt_list, 7970), (sym__stmt, 2024), (sym_assign, 3150), (sym_if_stmt, 3150),
     (sym_case_stmt, 3150), (sym_for_stmt, 3150), (sym_while_stmt, 3150), (sym_repeat_stmt, 3150),
     (sym_raise_stmt, 3150), (sym_try_stmt, 3150), (sym_ERR_clause_outside_try, 3150),
     (sym_begin_path_expression, 2943), (sym_invocation, 2934), (sym_any_invocation, 2935),
     (sym_this_invocation, 2641), (sym_super_invocation, 2641), (sym_super_body_invocation, 2935),
     (sym_path_expression, 2627), (sym_field_expression, 2373), (sym_index_expression, 2373),
     (sym_ladder_diagram, 7970), (sym_fb_diagram, 7970),
     (aux_sym_ERR_fb_variables_after_method_repeat1, 570), (aux_sym_func_decl_repeat1, 7194),
     (aux_sym_func_decl_repeat2, 2991), (aux_sym_fb_decl_repeat3, 571), (aux_sym_SFC_repeat1, 7612),
     (aux_sym_stmt_list_repeat1, 2024), (aux_sym_ladder_diagram_repeat1, 8009),
     (aux_sym_fb_diagram_repeat1, 8013), (sym_identifier, 298),
     (aux_sym_ERR_unexpected_this_in_path_token1, 304),
     (aux_sym_ERR_unexpected_super_in_path_token1, 306), (sym_line_comment, 3),
     (anon_sym_LBRACE, 308), (aux_sym_test_pragma_token1, 9), (aux_sym_once_pragma_token1, 11),
     (aux_sym_must_call_pragma_token1, 13), (aux_sym_export_pragma_token1, 15),
     (anon_sym_SEMI, 310), (anon_sym_PERCENT, 312), (aux_sym_input_decls_token1, 314),
     (aux_sym_output_decls_token1, 316), (aux_sym_in_out_decls_token1, 318),
     (aux_sym_var_decls_token1, 320), (aux_sym_temp_var_decls_token1, 322),
     (aux_sym_external_var_decls_token1, 324), (aux_sym_global_var_decls_token1, 326),
     (aux_sym_fb_decl_token4, 912), (aux_sym_method_decl_token1, 330),
     (aux_sym_prog_access_decls_token1, 332), (aux_sym_initial_step_token1, 334),
     (aux_sym_config_init_token1, 336), (aux_sym_using_directive_token1, 338),
     (aux_sym__stmt_token1, 340), (aux_sym__stmt_token2, 340), (aux_sym__stmt_token3, 340),
     (aux_sym_if_stmt_token1, 342), (aux_sym_case_stmt_token1, 344), (aux_sym_for_stmt_token1, 346),
     (aux_sym_while_stmt_token1, 348), (aux_sym_repeat_stmt_token1, 350),
     (aux_sym_raise_stmt_token1, 352), (aux_sym_try_stmt_token1, 354),
     (aux_sym_try_stmt_token2, 356), (aux_sym_catch_clause_token1, 356),
     (aux_sym_finally_clause_token1, 356), (sym_ld_rung, 358), (sym_fbd_network, 360),
     (sym_c_style_comment, 3), (sym_pascal_style_comment, 3), (sym_pragma, 3)]"

lemma ts_parse_row_291_scan: "row_scan tokens_63_2 0 ts_parse_row_291 = Some (Suc (Suc (Suc (Suc 0))))"
  unfolding ts_parse_row_291_def by simp

text \<open>Lines 88166 to 88281.\<close>

definition ts_parse_row_292 :: parse_row where
  "ts_parse_row_292 =
    [(sym_ERR_assign_func_call, 7530), (sym_ERR_unexpected_this_in_path, 2372),
     (sym_ERR_unexpected_super_in_path, 2372), (sym_ERR_fb_variables_after_method, 1805),
     (sym_ERR_var_access_not_allowed, 3160), (sym_ERR_var_config_not_allowed, 3160),
     (sym_ERR_var_global_not_allowed, 3160), (sym_ERR_method_decl_in_body, 3150),
     (sym_extern_pragma, 7490), (sym_wasm_pragma, 3150), (sym_warn_pragma, 7490),
     (sym_allow_pragma, 3140), (sym_test_pragma, 7490), (sym_once_pragma, 7490),
     (sym_must_call_pragma, 7490), (sym_export_pragma, 7490), (sym_pou_pragma, 7194),
     (sym_direct_variable, 7675), (sym_deref_expression, 2373), (sym_variable, 7599),
     (sym_var_access, 2373), (sym_in_out_decls, 3160), (sym_var_decls, 3160),
     (sym_retain_var_decls, 3160), (sym_temp_var_decls, 3160), (sym_external_var_decls, 3160),
     (sym_global_var_decls, 2947), (sym_loc_partly_var_decl, 3160), (sym__fb_variables, 387),
     (sym_fb_input_decls, 3160), (sym_fb_output_decls, 3160), (sym_no_retain_var_decls, 3160),
     (sym_fb_body, 9478), (sym_method_decl, 388), (sym_prog_access_decls, 3043), (sym_SFC, 7970),
     (sym_SFC_network, 7612), (sym_initial_step, 7439), (sym_config_init, 3047),
     (sym_using_directive, 2991), (sym_variable_access, 7530), (sym_func_call, 2961),
     (sym_stmt_list, 7970), (sym__stmt, 2024), (sym_assign, 3150), (sym_if_stmt, 3150),
     (sym_case_stmt, 3150), (sym_for_stmt, 3150), (sym_while_stmt, 3150), (sym_repeat_stmt, 3150),
     (sym_raise_stmt, 3150), (sym_try_stmt, 3150), (sym_ERR_clause_outside_try, 3150),
     (sym_begin_path_expression, 2943), (sym_invocation, 2934), (sym_any_invocation, 2935),
     (sym_this_invocation, 2641), (sym_super_invocation, 2641), (sym_super_body_invocation, 2935),
     (sym_path_expression, 2627), (sym_field_expression, 2373), (sym_index_expression, 2373),
     (sym_ladder_diagram, 7970), (sym_fb_diagram, 7970),
     (aux_sym_ERR_fb_variables_after_method_repeat1, 387), (aux_sym_func_decl_repeat1, 7194),
     (aux_sym_func_decl_repeat2, 2991), (aux_sym_fb_decl_repeat3, 388), (aux_sym_SFC_repeat1, 7612),
     (aux_sym_stmt_list_repeat1, 2024), (aux_sym_ladder_diagram_repeat1, 8009),
     (aux_sym_fb_diagram_repeat1, 8013), (sym_identifier, 298),
     (aux_sym_ERR_unexpected_this_in_path_token1, 304),
     (aux_sym_ERR_unexpected_super_in_path_token1, 306), (sym_line_comment, 3),
     (anon_sym_LBRACE, 308), (aux_sym_test_pragma_token1, 9), (aux_sym_once_pragma_token1, 11),
     (aux_sym_must_call_pragma_token1, 13), (aux_sym_export_pragma_token1, 15),
     (anon_sym_SEMI, 310), (anon_sym_PERCENT, 312), (aux_sym_input_decls_token1, 314),
     (aux_sym_output_decls_token1, 316), (aux_sym_in_out_decls_token1, 318),
     (aux_sym_var_decls_token1, 320), (aux_sym_temp_var_decls_token1, 322),
     (aux_sym_external_var_decls_token1, 324), (aux_sym_global_var_decls_token1, 326),
     (aux_sym_fb_decl_token4, 914), (aux_sym_method_decl_token1, 330),
     (aux_sym_prog_access_decls_token1, 332), (aux_sym_initial_step_token1, 334),
     (aux_sym_config_init_token1, 336), (aux_sym_using_directive_token1, 338),
     (aux_sym__stmt_token1, 340), (aux_sym__stmt_token2, 340), (aux_sym__stmt_token3, 340),
     (aux_sym_if_stmt_token1, 342), (aux_sym_case_stmt_token1, 344), (aux_sym_for_stmt_token1, 346),
     (aux_sym_while_stmt_token1, 348), (aux_sym_repeat_stmt_token1, 350),
     (aux_sym_raise_stmt_token1, 352), (aux_sym_try_stmt_token1, 354),
     (aux_sym_try_stmt_token2, 356), (aux_sym_catch_clause_token1, 356),
     (aux_sym_finally_clause_token1, 356), (sym_ld_rung, 358), (sym_fbd_network, 360),
     (sym_c_style_comment, 3), (sym_pascal_style_comment, 3), (sym_pragma, 3)]"

lemma ts_parse_row_292_scan: "row_scan tokens_63_2 0 ts_parse_row_292 = Some (Suc (Suc (Suc (Suc 0))))"
  unfolding ts_parse_row_292_def by simp

text \<open>Lines 88282 to 88397.\<close>

definition ts_parse_row_293 :: parse_row where
  "ts_parse_row_293 =
    [(sym_ERR_assign_func_call, 7530), (sym_ERR_unexpected_this_in_path, 2372),
     (sym_ERR_unexpected_super_in_path, 2372), (sym_ERR_fb_variables_after_method, 1498),
     (sym_ERR_var_access_not_allowed, 3160), (sym_ERR_var_config_not_allowed, 3160),
     (sym_ERR_var_global_not_allowed, 3160), (sym_ERR_method_decl_in_body, 3150),
     (sym_extern_pragma, 7490), (sym_wasm_pragma, 3150), (sym_warn_pragma, 7490),
     (sym_allow_pragma, 3140), (sym_test_pragma, 7490), (sym_once_pragma, 7490),
     (sym_must_call_pragma, 7490), (sym_export_pragma, 7490), (sym_pou_pragma, 7194),
     (sym_direct_variable, 7675), (sym_deref_expression, 2373), (sym_variable, 7599),
     (sym_var_access, 2373), (sym_in_out_decls, 3160), (sym_var_decls, 3160),
     (sym_retain_var_decls, 3160), (sym_temp_var_decls, 3160), (sym_external_var_decls, 3160),
     (sym_global_var_decls, 2947), (sym_loc_partly_var_decl, 3160), (sym__fb_variables, 536),
     (sym_fb_input_decls, 3160), (sym_fb_output_decls, 3160), (sym_no_retain_var_decls, 3160),
     (sym_fb_body, 10209), (sym_method_decl, 551), (sym_prog_access_decls, 3043), (sym_SFC, 7970),
     (sym_SFC_network, 7612), (sym_initial_step, 7439), (sym_config_init, 3047),
     (sym_using_directive, 2991), (sym_variable_access, 7530), (sym_func_call, 2961),
     (sym_stmt_list, 7970), (sym__stmt, 2024), (sym_assign, 3150), (sym_if_stmt, 3150),
     (sym_case_stmt, 3150), (sym_for_stmt, 3150), (sym_while_stmt, 3150), (sym_repeat_stmt, 3150),
     (sym_raise_stmt, 3150), (sym_try_stmt, 3150), (sym_ERR_clause_outside_try, 3150),
     (sym_begin_path_expression, 2943), (sym_invocation, 2934), (sym_any_invocation, 2935),
     (sym_this_invocation, 2641), (sym_super_invocation, 2641), (sym_super_body_invocation, 2935),
     (sym_path_expression, 2627), (sym_field_expression, 2373), (sym_index_expression, 2373),
     (sym_ladder_diagram, 7970), (sym_fb_diagram, 7970),
     (aux_sym_ERR_fb_variables_after_method_repeat1, 536), (aux_sym_func_decl_repeat1, 7194),
     (aux_sym_func_decl_repeat2, 2991), (aux_sym_fb_decl_repeat3, 551), (aux_sym_SFC_repeat1, 7612),
     (aux_sym_stmt_list_repeat1, 2024), (aux_sym_ladder_diagram_repeat1, 8009),
     (aux_sym_fb_diagram_repeat1, 8013), (sym_identifier, 298),
     (aux_sym_ERR_unexpected_this_in_path_token1, 304),
     (aux_sym_ERR_unexpected_super_in_path_token1, 306), (sym_line_comment, 3),
     (anon_sym_LBRACE, 308), (aux_sym_test_pragma_token1, 9), (aux_sym_once_pragma_token1, 11),
     (aux_sym_must_call_pragma_token1, 13), (aux_sym_export_pragma_token1, 15),
     (anon_sym_SEMI, 310), (anon_sym_PERCENT, 312), (aux_sym_input_decls_token1, 314),
     (aux_sym_output_decls_token1, 316), (aux_sym_in_out_decls_token1, 318),
     (aux_sym_var_decls_token1, 320), (aux_sym_temp_var_decls_token1, 322),
     (aux_sym_external_var_decls_token1, 324), (aux_sym_global_var_decls_token1, 326),
     (aux_sym_fb_decl_token4, 916), (aux_sym_method_decl_token1, 330),
     (aux_sym_prog_access_decls_token1, 332), (aux_sym_initial_step_token1, 334),
     (aux_sym_config_init_token1, 336), (aux_sym_using_directive_token1, 338),
     (aux_sym__stmt_token1, 340), (aux_sym__stmt_token2, 340), (aux_sym__stmt_token3, 340),
     (aux_sym_if_stmt_token1, 342), (aux_sym_case_stmt_token1, 344), (aux_sym_for_stmt_token1, 346),
     (aux_sym_while_stmt_token1, 348), (aux_sym_repeat_stmt_token1, 350),
     (aux_sym_raise_stmt_token1, 352), (aux_sym_try_stmt_token1, 354),
     (aux_sym_try_stmt_token2, 356), (aux_sym_catch_clause_token1, 356),
     (aux_sym_finally_clause_token1, 356), (sym_ld_rung, 358), (sym_fbd_network, 360),
     (sym_c_style_comment, 3), (sym_pascal_style_comment, 3), (sym_pragma, 3)]"

lemma ts_parse_row_293_scan: "row_scan tokens_63_2 0 ts_parse_row_293 = Some (Suc (Suc (Suc (Suc 0))))"
  unfolding ts_parse_row_293_def by simp

text \<open>Lines 88398 to 88513.\<close>

definition ts_parse_row_294 :: parse_row where
  "ts_parse_row_294 =
    [(sym_ERR_assign_func_call, 7530), (sym_ERR_unexpected_this_in_path, 2372),
     (sym_ERR_unexpected_super_in_path, 2372), (sym_ERR_fb_variables_after_method, 1933),
     (sym_ERR_var_access_not_allowed, 3160), (sym_ERR_var_config_not_allowed, 3160),
     (sym_ERR_var_global_not_allowed, 3160), (sym_ERR_method_decl_in_body, 3150),
     (sym_extern_pragma, 7490), (sym_wasm_pragma, 3150), (sym_warn_pragma, 7490),
     (sym_allow_pragma, 3140), (sym_test_pragma, 7490), (sym_once_pragma, 7490),
     (sym_must_call_pragma, 7490), (sym_export_pragma, 7490), (sym_pou_pragma, 7194),
     (sym_direct_variable, 7675), (sym_deref_expression, 2373), (sym_variable, 7599),
     (sym_var_access, 2373), (sym_in_out_decls, 3160), (sym_var_decls, 3160),
     (sym_retain_var_decls, 3160), (sym_temp_var_decls, 3160), (sym_external_var_decls, 3160),
     (sym_global_var_decls, 2947), (sym_loc_partly_var_decl, 3160), (sym__fb_variables, 456),
     (sym_fb_input_decls, 3160), (sym_fb_output_decls, 3160), (sym_no_retain_var_decls, 3160),
     (sym_fb_body, 9448), (sym_method_decl, 457), (sym_prog_access_decls, 3043), (sym_SFC, 7970),
     (sym_SFC_network, 7612), (sym_initial_step, 7439), (sym_config_init, 3047),
     (sym_using_directive, 2991), (sym_variable_access, 7530), (sym_func_call, 2961),
     (sym_stmt_list, 7970), (sym__stmt, 2024), (sym_assign, 3150), (sym_if_stmt, 3150),
     (sym_case_stmt, 3150), (sym_for_stmt, 3150), (sym_while_stmt, 3150), (sym_repeat_stmt, 3150),
     (sym_raise_stmt, 3150), (sym_try_stmt, 3150), (sym_ERR_clause_outside_try, 3150),
     (sym_begin_path_expression, 2943), (sym_invocation, 2934), (sym_any_invocation, 2935),
     (sym_this_invocation, 2641), (sym_super_invocation, 2641), (sym_super_body_invocation, 2935),
     (sym_path_expression, 2627), (sym_field_expression, 2373), (sym_index_expression, 2373),
     (sym_ladder_diagram, 7970), (sym_fb_diagram, 7970),
     (aux_sym_ERR_fb_variables_after_method_repeat1, 456), (aux_sym_func_decl_repeat1, 7194),
     (aux_sym_func_decl_repeat2, 2991), (aux_sym_fb_decl_repeat3, 457), (aux_sym_SFC_repeat1, 7612),
     (aux_sym_stmt_list_repeat1, 2024), (aux_sym_ladder_diagram_repeat1, 8009),
     (aux_sym_fb_diagram_repeat1, 8013), (sym_identifier, 298),
     (aux_sym_ERR_unexpected_this_in_path_token1, 304),
     (aux_sym_ERR_unexpected_super_in_path_token1, 306), (sym_line_comment, 3),
     (anon_sym_LBRACE, 308), (aux_sym_test_pragma_token1, 9), (aux_sym_once_pragma_token1, 11),
     (aux_sym_must_call_pragma_token1, 13), (aux_sym_export_pragma_token1, 15),
     (anon_sym_SEMI, 310), (anon_sym_PERCENT, 312), (aux_sym_input_decls_token1, 314),
     (aux_sym_output_decls_token1, 316), (aux_sym_in_out_decls_token1, 318),
     (aux_sym_var_decls_token1, 320), (aux_sym_temp_var_decls_token1, 322),
     (aux_sym_external_var_decls_token1, 324), (aux_sym_global_var_decls_token1, 326),
     (aux_sym_fb_decl_token4, 918), (aux_sym_method_decl_token1, 330),
     (aux_sym_prog_access_decls_token1, 332), (aux_sym_initial_step_token1, 334),
     (aux_sym_config_init_token1, 336), (aux_sym_using_directive_token1, 338),
     (aux_sym__stmt_token1, 340), (aux_sym__stmt_token2, 340), (aux_sym__stmt_token3, 340),
     (aux_sym_if_stmt_token1, 342), (aux_sym_case_stmt_token1, 344), (aux_sym_for_stmt_token1, 346),
     (aux_sym_while_stmt_token1, 348), (aux_sym_repeat_stmt_token1, 350),
     (aux_sym_raise_stmt_token1, 352), (aux_sym_try_stmt_token1, 354),
     (aux_sym_try_stmt_token2, 356), (aux_sym_catch_clause_token1, 356),
     (aux_sym_finally_clause_token1, 356), (sym_ld_rung, 358), (sym_fbd_network, 360),
     (sym_c_style_comment, 3), (sym_pascal_style_comment, 3), (sym_pragma, 3)]"

lemma ts_parse_row_294_scan: "row_scan tokens_63_2 0 ts_parse_row_294 = Some (Suc (Suc (Suc (Suc 0))))"
  unfolding ts_parse_row_294_def by simp

text \<open>Lines 88514 to 88629.\<close>

definition ts_parse_row_295 :: parse_row where
  "ts_parse_row_295 =
    [(sym_ERR_assign_func_call, 7530), (sym_ERR_unexpected_this_in_path, 2372),
     (sym_ERR_unexpected_super_in_path, 2372), (sym_ERR_fb_variables_after_method, 1618),
     (sym_ERR_var_access_not_allowed, 3160), (sym_ERR_var_config_not_allowed, 3160),
     (sym_ERR_var_global_not_allowed, 3160), (sym_ERR_method_decl_in_body, 3150),
     (sym_extern_pragma, 7490), (sym_wasm_pragma, 3150), (sym_warn_pragma, 7490),
     (sym_allow_pragma, 3140), (sym_test_pragma, 7490), (sym_once_pragma, 7490),
     (sym_must_call_pragma, 7490), (sym_export_pragma, 7490), (sym_pou_pragma, 7194),
     (sym_direct_variable, 7675), (sym_deref_expression, 2373), (sym_variable, 7599),
     (sym_var_access, 2373), (sym_in_out_decls, 3160), (sym_var_decls, 3160),
     (sym_retain_var_decls, 3160), (sym_temp_var_decls, 3160), (sym_external_var_decls, 3160),
     (sym_global_var_decls, 2947), (sym_loc_partly_var_decl, 3160), (sym__fb_variables, 343),
     (sym_fb_input_decls, 3160), (sym_fb_output_decls, 3160), (sym_no_retain_var_decls, 3160),
     (sym_fb_body, 8825), (sym_method_decl, 344), (sym_prog_access_decls, 3043), (sym_SFC, 7970),
     (sym_SFC_network, 7612), (sym_initial_step, 7439), (sym_config_init, 3047),
     (sym_using_directive, 2991), (sym_variable_access, 7530), (sym_func_call, 2961),
     (sym_stmt_list, 7970), (sym__stmt, 2024), (sym_assign, 3150), (sym_if_stmt, 3150),
     (sym_case_stmt, 3150), (sym_for_stmt, 3150), (sym_while_stmt, 3150), (sym_repeat_stmt, 3150),
     (sym_raise_stmt, 3150), (sym_try_stmt, 3150), (sym_ERR_clause_outside_try, 3150),
     (sym_begin_path_expression, 2943), (sym_invocation, 2934), (sym_any_invocation, 2935),
     (sym_this_invocation, 2641), (sym_super_invocation, 2641), (sym_super_body_invocation, 2935),
     (sym_path_expression, 2627), (sym_field_expression, 2373), (sym_index_expression, 2373),
     (sym_ladder_diagram, 7970), (sym_fb_diagram, 7970),
     (aux_sym_ERR_fb_variables_after_method_repeat1, 343), (aux_sym_func_decl_repeat1, 7194),
     (aux_sym_func_decl_repeat2, 2991), (aux_sym_fb_decl_repeat3, 344), (aux_sym_SFC_repeat1, 7612),
     (aux_sym_stmt_list_repeat1, 2024), (aux_sym_ladder_diagram_repeat1, 8009),
     (aux_sym_fb_diagram_repeat1, 8013), (sym_identifier, 298),
     (aux_sym_ERR_unexpected_this_in_path_token1, 304),
     (aux_sym_ERR_unexpected_super_in_path_token1, 306), (sym_line_comment, 3),
     (anon_sym_LBRACE, 308), (aux_sym_test_pragma_token1, 9), (aux_sym_once_pragma_token1, 11),
     (aux_sym_must_call_pragma_token1, 13), (aux_sym_export_pragma_token1, 15),
     (anon_sym_SEMI, 310), (anon_sym_PERCENT, 312), (aux_sym_input_decls_token1, 314),
     (aux_sym_output_decls_token1, 316), (aux_sym_in_out_decls_token1, 318),
     (aux_sym_var_decls_token1, 320), (aux_sym_temp_var_decls_token1, 322),
     (aux_sym_external_var_decls_token1, 324), (aux_sym_global_var_decls_token1, 326),
     (aux_sym_fb_decl_token4, 920), (aux_sym_method_decl_token1, 330),
     (aux_sym_prog_access_decls_token1, 332), (aux_sym_initial_step_token1, 334),
     (aux_sym_config_init_token1, 336), (aux_sym_using_directive_token1, 338),
     (aux_sym__stmt_token1, 340), (aux_sym__stmt_token2, 340), (aux_sym__stmt_token3, 340),
     (aux_sym_if_stmt_token1, 342), (aux_sym_case_stmt_token1, 344), (aux_sym_for_stmt_token1, 346),
     (aux_sym_while_stmt_token1, 348), (aux_sym_repeat_stmt_token1, 350),
     (aux_sym_raise_stmt_token1, 352), (aux_sym_try_stmt_token1, 354),
     (aux_sym_try_stmt_token2, 356), (aux_sym_catch_clause_token1, 356),
     (aux_sym_finally_clause_token1, 356), (sym_ld_rung, 358), (sym_fbd_network, 360),
     (sym_c_style_comment, 3), (sym_pascal_style_comment, 3), (sym_pragma, 3)]"

lemma ts_parse_row_295_scan: "row_scan tokens_63_2 0 ts_parse_row_295 = Some (Suc (Suc (Suc (Suc 0))))"
  unfolding ts_parse_row_295_def by simp

text \<open>Lines 88630 to 88745.\<close>

definition ts_parse_row_296 :: parse_row where
  "ts_parse_row_296 =
    [(sym_ERR_assign_func_call, 7530), (sym_ERR_unexpected_this_in_path, 2372),
     (sym_ERR_unexpected_super_in_path, 2372), (sym_ERR_fb_variables_after_method, 1949),
     (sym_ERR_var_access_not_allowed, 3160), (sym_ERR_var_config_not_allowed, 3160),
     (sym_ERR_var_global_not_allowed, 3160), (sym_ERR_method_decl_in_body, 3150),
     (sym_extern_pragma, 7490), (sym_wasm_pragma, 3150), (sym_warn_pragma, 7490),
     (sym_allow_pragma, 3140), (sym_test_pragma, 7490), (sym_once_pragma, 7490),
     (sym_must_call_pragma, 7490), (sym_export_pragma, 7490), (sym_pou_pragma, 7194),
     (sym_direct_variable, 7675), (sym_deref_expression, 2373), (sym_variable, 7599),
     (sym_var_access, 2373), (sym_in_out_decls, 3160), (sym_var_decls, 3160),
     (sym_retain_var_decls, 3160), (sym_temp_var_decls, 3160), (sym_external_var_decls, 3160),
     (sym_global_var_decls, 2947), (sym_loc_partly_var_decl, 3160), (sym__fb_variables, 459),
     (sym_fb_input_decls, 3160), (sym_fb_output_decls, 3160), (sym_no_retain_var_decls, 3160),
     (sym_fb_body, 9166), (sym_method_decl, 461), (sym_prog_access_decls, 3043), (sym_SFC, 7970),
     (sym_SFC_network, 7612), (sym_initial_step, 7439), (sym_config_init, 3047),
     (sym_using_directive, 2991), (sym_variable_access, 7530), (sym_func_call, 2961),
     (sym_stmt_list, 7970), (sym__stmt, 2024), (sym_assign, 3150), (sym_if_stmt, 3150),
     (sym_case_stmt, 3150), (sym_for_stmt, 3150), (sym_while_stmt, 3150), (sym_repeat_stmt, 3150),
     (sym_raise_stmt, 3150), (sym_try_stmt, 3150), (sym_ERR_clause_outside_try, 3150),
     (sym_begin_path_expression, 2943), (sym_invocation, 2934), (sym_any_invocation, 2935),
     (sym_this_invocation, 2641), (sym_super_invocation, 2641), (sym_super_body_invocation, 2935),
     (sym_path_expression, 2627), (sym_field_expression, 2373), (sym_index_expression, 2373),
     (sym_ladder_diagram, 7970), (sym_fb_diagram, 7970),
     (aux_sym_ERR_fb_variables_after_method_repeat1, 459), (aux_sym_func_decl_repeat1, 7194),
     (aux_sym_func_decl_repeat2, 2991), (aux_sym_fb_decl_repeat3, 461), (aux_sym_SFC_repeat1, 7612),
     (aux_sym_stmt_list_repeat1, 2024), (aux_sym_ladder_diagram_repeat1, 8009),
     (aux_sym_fb_diagram_repeat1, 8013), (sym_identifier, 298),
     (aux_sym_ERR_unexpected_this_in_path_token1, 304),
     (aux_sym_ERR_unexpected_super_in_path_token1, 306), (sym_line_comment, 3),
     (anon_sym_LBRACE, 308), (aux_sym_test_pragma_token1, 9), (aux_sym_once_pragma_token1, 11),
     (aux_sym_must_call_pragma_token1, 13), (aux_sym_export_pragma_token1, 15),
     (anon_sym_SEMI, 310), (anon_sym_PERCENT, 312), (aux_sym_input_decls_token1, 314),
     (aux_sym_output_decls_token1, 316), (aux_sym_in_out_decls_token1, 318),
     (aux_sym_var_decls_token1, 320), (aux_sym_temp_var_decls_token1, 322),
     (aux_sym_external_var_decls_token1, 324), (aux_sym_global_var_decls_token1, 326),
     (aux_sym_fb_decl_token4, 922), (aux_sym_method_decl_token1, 330),
     (aux_sym_prog_access_decls_token1, 332), (aux_sym_initial_step_token1, 334),
     (aux_sym_config_init_token1, 336), (aux_sym_using_directive_token1, 338),
     (aux_sym__stmt_token1, 340), (aux_sym__stmt_token2, 340), (aux_sym__stmt_token3, 340),
     (aux_sym_if_stmt_token1, 342), (aux_sym_case_stmt_token1, 344), (aux_sym_for_stmt_token1, 346),
     (aux_sym_while_stmt_token1, 348), (aux_sym_repeat_stmt_token1, 350),
     (aux_sym_raise_stmt_token1, 352), (aux_sym_try_stmt_token1, 354),
     (aux_sym_try_stmt_token2, 356), (aux_sym_catch_clause_token1, 356),
     (aux_sym_finally_clause_token1, 356), (sym_ld_rung, 358), (sym_fbd_network, 360),
     (sym_c_style_comment, 3), (sym_pascal_style_comment, 3), (sym_pragma, 3)]"

lemma ts_parse_row_296_scan: "row_scan tokens_63_2 0 ts_parse_row_296 = Some (Suc (Suc (Suc (Suc 0))))"
  unfolding ts_parse_row_296_def by simp

text \<open>Lines 88746 to 88861.\<close>

definition ts_parse_row_297 :: parse_row where
  "ts_parse_row_297 =
    [(sym_ERR_assign_func_call, 7530), (sym_ERR_unexpected_this_in_path, 2372),
     (sym_ERR_unexpected_super_in_path, 2372), (sym_ERR_fb_variables_after_method, 1333),
     (sym_ERR_var_access_not_allowed, 3160), (sym_ERR_var_config_not_allowed, 3160),
     (sym_ERR_var_global_not_allowed, 3160), (sym_ERR_method_decl_in_body, 3150),
     (sym_extern_pragma, 7490), (sym_wasm_pragma, 3150), (sym_warn_pragma, 7490),
     (sym_allow_pragma, 3140), (sym_test_pragma, 7490), (sym_once_pragma, 7490),
     (sym_must_call_pragma, 7490), (sym_export_pragma, 7490), (sym_pou_pragma, 7194),
     (sym_direct_variable, 7675), (sym_deref_expression, 2373), (sym_variable, 7599),
     (sym_var_access, 2373), (sym_in_out_decls, 3160), (sym_var_decls, 3160),
     (sym_retain_var_decls, 3160), (sym_temp_var_decls, 3160), (sym_external_var_decls, 3160),
     (sym_global_var_decls, 2947), (sym_loc_partly_var_decl, 3160), (sym__fb_variables, 582),
     (sym_fb_input_decls, 3160), (sym_fb_output_decls, 3160), (sym_no_retain_var_decls, 3160),
     (sym_fb_body, 10145), (sym_method_decl, 583), (sym_prog_access_decls, 3043), (sym_SFC, 7970),
     (sym_SFC_network, 7612), (sym_initial_step, 7439), (sym_config_init, 3047),
     (sym_using_directive, 2991), (sym_variable_access, 7530), (sym_func_call, 2961),
     (sym_stmt_list, 7970), (sym__stmt, 2024), (sym_assign, 3150), (sym_if_stmt, 3150),
     (sym_case_stmt, 3150), (sym_for_stmt, 3150), (sym_while_stmt, 3150), (sym_repeat_stmt, 3150),
     (sym_raise_stmt, 3150), (sym_try_stmt, 3150), (sym_ERR_clause_outside_try, 3150),
     (sym_begin_path_expression, 2943), (sym_invocation, 2934), (sym_any_invocation, 2935),
     (sym_this_invocation, 2641), (sym_super_invocation, 2641), (sym_super_body_invocation, 2935),
     (sym_path_expression, 2627), (sym_field_expression, 2373), (sym_index_expression, 2373),
     (sym_ladder_diagram, 7970), (sym_fb_diagram, 7970),
     (aux_sym_ERR_fb_variables_after_method_repeat1, 582), (aux_sym_func_decl_repeat1, 7194),
     (aux_sym_func_decl_repeat2, 2991), (aux_sym_fb_decl_repeat3, 583), (aux_sym_SFC_repeat1, 7612),
     (aux_sym_stmt_list_repeat1, 2024), (aux_sym_ladder_diagram_repeat1, 8009),
     (aux_sym_fb_diagram_repeat1, 8013), (sym_identifier, 298),
     (aux_sym_ERR_unexpected_this_in_path_token1, 304),
     (aux_sym_ERR_unexpected_super_in_path_token1, 306), (sym_line_comment, 3),
     (anon_sym_LBRACE, 308), (aux_sym_test_pragma_token1, 9), (aux_sym_once_pragma_token1, 11),
     (aux_sym_must_call_pragma_token1, 13), (aux_sym_export_pragma_token1, 15),
     (anon_sym_SEMI, 310), (anon_sym_PERCENT, 312), (aux_sym_input_decls_token1, 314),
     (aux_sym_output_decls_token1, 316), (aux_sym_in_out_decls_token1, 318),
     (aux_sym_var_decls_token1, 320), (aux_sym_temp_var_decls_token1, 322),
     (aux_sym_external_var_decls_token1, 324), (aux_sym_global_var_decls_token1, 326),
     (aux_sym_fb_decl_token4, 924), (aux_sym_method_decl_token1, 330),
     (aux_sym_prog_access_decls_token1, 332), (aux_sym_initial_step_token1, 334),
     (aux_sym_config_init_token1, 336), (aux_sym_using_directive_token1, 338),
     (aux_sym__stmt_token1, 340), (aux_sym__stmt_token2, 340), (aux_sym__stmt_token3, 340),
     (aux_sym_if_stmt_token1, 342), (aux_sym_case_stmt_token1, 344), (aux_sym_for_stmt_token1, 346),
     (aux_sym_while_stmt_token1, 348), (aux_sym_repeat_stmt_token1, 350),
     (aux_sym_raise_stmt_token1, 352), (aux_sym_try_stmt_token1, 354),
     (aux_sym_try_stmt_token2, 356), (aux_sym_catch_clause_token1, 356),
     (aux_sym_finally_clause_token1, 356), (sym_ld_rung, 358), (sym_fbd_network, 360),
     (sym_c_style_comment, 3), (sym_pascal_style_comment, 3), (sym_pragma, 3)]"

lemma ts_parse_row_297_scan: "row_scan tokens_63_2 0 ts_parse_row_297 = Some (Suc (Suc (Suc (Suc 0))))"
  unfolding ts_parse_row_297_def by simp

text \<open>Lines 88862 to 88977.\<close>

definition ts_parse_row_298 :: parse_row where
  "ts_parse_row_298 =
    [(sym_ERR_assign_func_call, 7530), (sym_ERR_unexpected_this_in_path, 2372),
     (sym_ERR_unexpected_super_in_path, 2372), (sym_ERR_fb_variables_after_method, 1962),
     (sym_ERR_var_access_not_allowed, 3160), (sym_ERR_var_config_not_allowed, 3160),
     (sym_ERR_var_global_not_allowed, 3160), (sym_ERR_method_decl_in_body, 3150),
     (sym_extern_pragma, 7490), (sym_wasm_pragma, 3150), (sym_warn_pragma, 7490),
     (sym_allow_pragma, 3140), (sym_test_pragma, 7490), (sym_once_pragma, 7490),
     (sym_must_call_pragma, 7490), (sym_export_pragma, 7490), (sym_pou_pragma, 7194),
     (sym_direct_variable, 7675), (sym_deref_expression, 2373), (sym_variable, 7599),
     (sym_var_access, 2373), (sym_in_out_decls, 3160), (sym_var_decls, 3160),
     (sym_retain_var_decls, 3160), (sym_temp_var_decls, 3160), (sym_external_var_decls, 3160),
     (sym_global_var_decls, 2947), (sym_loc_partly_var_decl, 3160), (sym__fb_variables, 483),
     (sym_fb_input_decls, 3160), (sym_fb_output_decls, 3160), (sym_no_retain_var_decls, 3160),
     (sym_fb_body, 9246), (sym_method_decl, 486), (sym_prog_access_decls, 3043), (sym_SFC, 7970),
     (sym_SFC_network, 7612), (sym_initial_step, 7439), (sym_config_init, 3047),
     (sym_using_directive, 2991), (sym_variable_access, 7530), (sym_func_call, 2961),
     (sym_stmt_list, 7970), (sym__stmt, 2024), (sym_assign, 3150), (sym_if_stmt, 3150),
     (sym_case_stmt, 3150), (sym_for_stmt, 3150), (sym_while_stmt, 3150), (sym_repeat_stmt, 3150),
     (sym_raise_stmt, 3150), (sym_try_stmt, 3150), (sym_ERR_clause_outside_try, 3150),
     (sym_begin_path_expression, 2943), (sym_invocation, 2934), (sym_any_invocation, 2935),
     (sym_this_invocation, 2641), (sym_super_invocation, 2641), (sym_super_body_invocation, 2935),
     (sym_path_expression, 2627), (sym_field_expression, 2373), (sym_index_expression, 2373),
     (sym_ladder_diagram, 7970), (sym_fb_diagram, 7970),
     (aux_sym_ERR_fb_variables_after_method_repeat1, 483), (aux_sym_func_decl_repeat1, 7194),
     (aux_sym_func_decl_repeat2, 2991), (aux_sym_fb_decl_repeat3, 486), (aux_sym_SFC_repeat1, 7612),
     (aux_sym_stmt_list_repeat1, 2024), (aux_sym_ladder_diagram_repeat1, 8009),
     (aux_sym_fb_diagram_repeat1, 8013), (sym_identifier, 298),
     (aux_sym_ERR_unexpected_this_in_path_token1, 304),
     (aux_sym_ERR_unexpected_super_in_path_token1, 306), (sym_line_comment, 3),
     (anon_sym_LBRACE, 308), (aux_sym_test_pragma_token1, 9), (aux_sym_once_pragma_token1, 11),
     (aux_sym_must_call_pragma_token1, 13), (aux_sym_export_pragma_token1, 15),
     (anon_sym_SEMI, 310), (anon_sym_PERCENT, 312), (aux_sym_input_decls_token1, 314),
     (aux_sym_output_decls_token1, 316), (aux_sym_in_out_decls_token1, 318),
     (aux_sym_var_decls_token1, 320), (aux_sym_temp_var_decls_token1, 322),
     (aux_sym_external_var_decls_token1, 324), (aux_sym_global_var_decls_token1, 326),
     (aux_sym_fb_decl_token4, 926), (aux_sym_method_decl_token1, 330),
     (aux_sym_prog_access_decls_token1, 332), (aux_sym_initial_step_token1, 334),
     (aux_sym_config_init_token1, 336), (aux_sym_using_directive_token1, 338),
     (aux_sym__stmt_token1, 340), (aux_sym__stmt_token2, 340), (aux_sym__stmt_token3, 340),
     (aux_sym_if_stmt_token1, 342), (aux_sym_case_stmt_token1, 344), (aux_sym_for_stmt_token1, 346),
     (aux_sym_while_stmt_token1, 348), (aux_sym_repeat_stmt_token1, 350),
     (aux_sym_raise_stmt_token1, 352), (aux_sym_try_stmt_token1, 354),
     (aux_sym_try_stmt_token2, 356), (aux_sym_catch_clause_token1, 356),
     (aux_sym_finally_clause_token1, 356), (sym_ld_rung, 358), (sym_fbd_network, 360),
     (sym_c_style_comment, 3), (sym_pascal_style_comment, 3), (sym_pragma, 3)]"

lemma ts_parse_row_298_scan: "row_scan tokens_63_2 0 ts_parse_row_298 = Some (Suc (Suc (Suc (Suc 0))))"
  unfolding ts_parse_row_298_def by simp

text \<open>Lines 88978 to 89093.\<close>

definition ts_parse_row_299 :: parse_row where
  "ts_parse_row_299 =
    [(sym_ERR_assign_func_call, 7530), (sym_ERR_unexpected_this_in_path, 2372),
     (sym_ERR_unexpected_super_in_path, 2372), (sym_ERR_fb_variables_after_method, 1332),
     (sym_ERR_var_access_not_allowed, 3160), (sym_ERR_var_config_not_allowed, 3160),
     (sym_ERR_var_global_not_allowed, 3160), (sym_ERR_method_decl_in_body, 3150),
     (sym_extern_pragma, 7490), (sym_wasm_pragma, 3150), (sym_warn_pragma, 7490),
     (sym_allow_pragma, 3140), (sym_test_pragma, 7490), (sym_once_pragma, 7490),
     (sym_must_call_pragma, 7490), (sym_export_pragma, 7490), (sym_pou_pragma, 7194),
     (sym_direct_variable, 7675), (sym_deref_expression, 2373), (sym_variable, 7599),
     (sym_var_access, 2373), (sym_in_out_decls, 3160), (sym_var_decls, 3160),
     (sym_retain_var_decls, 3160), (sym_temp_var_decls, 3160), (sym_external_var_decls, 3160),
     (sym_global_var_decls, 2947), (sym_loc_partly_var_decl, 3160), (sym__fb_variables, 850),
     (sym_fb_input_decls, 3160), (sym_fb_output_decls, 3160), (sym_no_retain_var_decls, 3160),
     (sym_fb_body, 10468), (sym_method_decl, 851), (sym_prog_access_decls, 3043), (sym_SFC, 7970),
     (sym_SFC_network, 7612), (sym_initial_step, 7439), (sym_config_init, 3047),
     (sym_using_directive, 2991), (sym_variable_access, 7530), (sym_func_call, 2961),
     (sym_stmt_list, 7970), (sym__stmt, 2024), (sym_assign, 3150), (sym_if_stmt, 3150),
     (sym_case_stmt, 3150), (sym_for_stmt, 3150), (sym_while_stmt, 3150), (sym_repeat_stmt, 3150),
     (sym_raise_stmt, 3150), (sym_try_stmt, 3150), (sym_ERR_clause_outside_try, 3150),
     (sym_begin_path_expression, 2943), (sym_invocation, 2934), (sym_any_invocation, 2935),
     (sym_this_invocation, 2641), (sym_super_invocation, 2641), (sym_super_body_invocation, 2935),
     (sym_path_expression, 2627), (sym_field_expression, 2373), (sym_index_expression, 2373),
     (sym_ladder_diagram, 7970), (sym_fb_diagram, 7970),
     (aux_sym_ERR_fb_variables_after_method_repeat1, 850), (aux_sym_func_decl_repeat1, 7194),
     (aux_sym_func_decl_repeat2, 2991), (aux_sym_fb_decl_repeat3, 851), (aux_sym_SFC_repeat1, 7612),
     (aux_sym_stmt_list_repeat1, 2024), (aux_sym_ladder_diagram_repeat1, 8009),
     (aux_sym_fb_diagram_repeat1, 8013), (sym_identifier, 298),
     (aux_sym_ERR_unexpected_this_in_path_token1, 304),
     (aux_sym_ERR_unexpected_super_in_path_token1, 306), (sym_line_comment, 3),
     (anon_sym_LBRACE, 308), (aux_sym_test_pragma_token1, 9), (aux_sym_once_pragma_token1, 11),
     (aux_sym_must_call_pragma_token1, 13), (aux_sym_export_pragma_token1, 15),
     (anon_sym_SEMI, 310), (anon_sym_PERCENT, 312), (aux_sym_input_decls_token1, 314),
     (aux_sym_output_decls_token1, 316), (aux_sym_in_out_decls_token1, 318),
     (aux_sym_var_decls_token1, 320), (aux_sym_temp_var_decls_token1, 322),
     (aux_sym_external_var_decls_token1, 324), (aux_sym_global_var_decls_token1, 326),
     (aux_sym_fb_decl_token4, 928), (aux_sym_method_decl_token1, 330),
     (aux_sym_prog_access_decls_token1, 332), (aux_sym_initial_step_token1, 334),
     (aux_sym_config_init_token1, 336), (aux_sym_using_directive_token1, 338),
     (aux_sym__stmt_token1, 340), (aux_sym__stmt_token2, 340), (aux_sym__stmt_token3, 340),
     (aux_sym_if_stmt_token1, 342), (aux_sym_case_stmt_token1, 344), (aux_sym_for_stmt_token1, 346),
     (aux_sym_while_stmt_token1, 348), (aux_sym_repeat_stmt_token1, 350),
     (aux_sym_raise_stmt_token1, 352), (aux_sym_try_stmt_token1, 354),
     (aux_sym_try_stmt_token2, 356), (aux_sym_catch_clause_token1, 356),
     (aux_sym_finally_clause_token1, 356), (sym_ld_rung, 358), (sym_fbd_network, 360),
     (sym_c_style_comment, 3), (sym_pascal_style_comment, 3), (sym_pragma, 3)]"

lemma ts_parse_row_299_scan: "row_scan tokens_63_2 0 ts_parse_row_299 = Some (Suc (Suc (Suc (Suc 0))))"
  unfolding ts_parse_row_299_def by simp

definition parse_rows_2 :: "parse_row list" where
  "parse_rows_2 =
    [ts_parse_row_150, ts_parse_row_151, ts_parse_row_152, ts_parse_row_153, ts_parse_row_154,
     ts_parse_row_155, ts_parse_row_156, ts_parse_row_157, ts_parse_row_158, ts_parse_row_159,
     ts_parse_row_160, ts_parse_row_161, ts_parse_row_162, ts_parse_row_163, ts_parse_row_164,
     ts_parse_row_165, ts_parse_row_166, ts_parse_row_167, ts_parse_row_168, ts_parse_row_169,
     ts_parse_row_170, ts_parse_row_171, ts_parse_row_172, ts_parse_row_173, ts_parse_row_174,
     ts_parse_row_175, ts_parse_row_176, ts_parse_row_177, ts_parse_row_178, ts_parse_row_179,
     ts_parse_row_180, ts_parse_row_181, ts_parse_row_182, ts_parse_row_183, ts_parse_row_184,
     ts_parse_row_185, ts_parse_row_186, ts_parse_row_187, ts_parse_row_188, ts_parse_row_189,
     ts_parse_row_190, ts_parse_row_191, ts_parse_row_192, ts_parse_row_193, ts_parse_row_194,
     ts_parse_row_195, ts_parse_row_196, ts_parse_row_197, ts_parse_row_198, ts_parse_row_199,
     ts_parse_row_200, ts_parse_row_201, ts_parse_row_202, ts_parse_row_203, ts_parse_row_204,
     ts_parse_row_205, ts_parse_row_206, ts_parse_row_207, ts_parse_row_208, ts_parse_row_209,
     ts_parse_row_210, ts_parse_row_211, ts_parse_row_212, ts_parse_row_213, ts_parse_row_214,
     ts_parse_row_215, ts_parse_row_216, ts_parse_row_217, ts_parse_row_218, ts_parse_row_219,
     ts_parse_row_220, ts_parse_row_221, ts_parse_row_222, ts_parse_row_223, ts_parse_row_224,
     ts_parse_row_225, ts_parse_row_226, ts_parse_row_227, ts_parse_row_228, ts_parse_row_229,
     ts_parse_row_230, ts_parse_row_231, ts_parse_row_232, ts_parse_row_233, ts_parse_row_234,
     ts_parse_row_235, ts_parse_row_236, ts_parse_row_237, ts_parse_row_238, ts_parse_row_239,
     ts_parse_row_240, ts_parse_row_241, ts_parse_row_242, ts_parse_row_243, ts_parse_row_244,
     ts_parse_row_245, ts_parse_row_246, ts_parse_row_247, ts_parse_row_248, ts_parse_row_249,
     ts_parse_row_250, ts_parse_row_251, ts_parse_row_252, ts_parse_row_253, ts_parse_row_254,
     ts_parse_row_255, ts_parse_row_256, ts_parse_row_257, ts_parse_row_258, ts_parse_row_259,
     ts_parse_row_260, ts_parse_row_261, ts_parse_row_262, ts_parse_row_263, ts_parse_row_264,
     ts_parse_row_265, ts_parse_row_266, ts_parse_row_267, ts_parse_row_268, ts_parse_row_269,
     ts_parse_row_270, ts_parse_row_271, ts_parse_row_272, ts_parse_row_273, ts_parse_row_274,
     ts_parse_row_275, ts_parse_row_276, ts_parse_row_277, ts_parse_row_278, ts_parse_row_279,
     ts_parse_row_280, ts_parse_row_281, ts_parse_row_282, ts_parse_row_283, ts_parse_row_284,
     ts_parse_row_285, ts_parse_row_286, ts_parse_row_287, ts_parse_row_288, ts_parse_row_289,
     ts_parse_row_290, ts_parse_row_291, ts_parse_row_292, ts_parse_row_293, ts_parse_row_294,
     ts_parse_row_295, ts_parse_row_296, ts_parse_row_297, ts_parse_row_298, ts_parse_row_299]"

lemmas parse_rows_2_scan =
  ts_parse_row_150_scan ts_parse_row_151_scan ts_parse_row_152_scan ts_parse_row_153_scan
  ts_parse_row_154_scan ts_parse_row_155_scan ts_parse_row_156_scan ts_parse_row_157_scan
  ts_parse_row_158_scan ts_parse_row_159_scan ts_parse_row_160_scan ts_parse_row_161_scan
  ts_parse_row_162_scan ts_parse_row_163_scan ts_parse_row_164_scan ts_parse_row_165_scan
  ts_parse_row_166_scan ts_parse_row_167_scan ts_parse_row_168_scan ts_parse_row_169_scan
  ts_parse_row_170_scan ts_parse_row_171_scan ts_parse_row_172_scan ts_parse_row_173_scan
  ts_parse_row_174_scan ts_parse_row_175_scan ts_parse_row_176_scan ts_parse_row_177_scan
  ts_parse_row_178_scan ts_parse_row_179_scan ts_parse_row_180_scan ts_parse_row_181_scan
  ts_parse_row_182_scan ts_parse_row_183_scan ts_parse_row_184_scan ts_parse_row_185_scan
  ts_parse_row_186_scan ts_parse_row_187_scan ts_parse_row_188_scan ts_parse_row_189_scan
  ts_parse_row_190_scan ts_parse_row_191_scan ts_parse_row_192_scan ts_parse_row_193_scan
  ts_parse_row_194_scan ts_parse_row_195_scan ts_parse_row_196_scan ts_parse_row_197_scan
  ts_parse_row_198_scan ts_parse_row_199_scan ts_parse_row_200_scan ts_parse_row_201_scan
  ts_parse_row_202_scan ts_parse_row_203_scan ts_parse_row_204_scan ts_parse_row_205_scan
  ts_parse_row_206_scan ts_parse_row_207_scan ts_parse_row_208_scan ts_parse_row_209_scan
  ts_parse_row_210_scan ts_parse_row_211_scan ts_parse_row_212_scan ts_parse_row_213_scan
  ts_parse_row_214_scan ts_parse_row_215_scan ts_parse_row_216_scan ts_parse_row_217_scan
  ts_parse_row_218_scan ts_parse_row_219_scan ts_parse_row_220_scan ts_parse_row_221_scan
  ts_parse_row_222_scan ts_parse_row_223_scan ts_parse_row_224_scan ts_parse_row_225_scan
  ts_parse_row_226_scan ts_parse_row_227_scan ts_parse_row_228_scan ts_parse_row_229_scan
  ts_parse_row_230_scan ts_parse_row_231_scan ts_parse_row_232_scan ts_parse_row_233_scan
  ts_parse_row_234_scan ts_parse_row_235_scan ts_parse_row_236_scan ts_parse_row_237_scan
  ts_parse_row_238_scan ts_parse_row_239_scan ts_parse_row_240_scan ts_parse_row_241_scan
  ts_parse_row_242_scan ts_parse_row_243_scan ts_parse_row_244_scan ts_parse_row_245_scan
  ts_parse_row_246_scan ts_parse_row_247_scan ts_parse_row_248_scan ts_parse_row_249_scan
  ts_parse_row_250_scan ts_parse_row_251_scan ts_parse_row_252_scan ts_parse_row_253_scan
  ts_parse_row_254_scan ts_parse_row_255_scan ts_parse_row_256_scan ts_parse_row_257_scan
  ts_parse_row_258_scan ts_parse_row_259_scan ts_parse_row_260_scan ts_parse_row_261_scan
  ts_parse_row_262_scan ts_parse_row_263_scan ts_parse_row_264_scan ts_parse_row_265_scan
  ts_parse_row_266_scan ts_parse_row_267_scan ts_parse_row_268_scan ts_parse_row_269_scan
  ts_parse_row_270_scan ts_parse_row_271_scan ts_parse_row_272_scan ts_parse_row_273_scan
  ts_parse_row_274_scan ts_parse_row_275_scan ts_parse_row_276_scan ts_parse_row_277_scan
  ts_parse_row_278_scan ts_parse_row_279_scan ts_parse_row_280_scan ts_parse_row_281_scan
  ts_parse_row_282_scan ts_parse_row_283_scan ts_parse_row_284_scan ts_parse_row_285_scan
  ts_parse_row_286_scan ts_parse_row_287_scan ts_parse_row_288_scan ts_parse_row_289_scan
  ts_parse_row_290_scan ts_parse_row_291_scan ts_parse_row_292_scan ts_parse_row_293_scan
  ts_parse_row_294_scan ts_parse_row_295_scan ts_parse_row_296_scan ts_parse_row_297_scan
  ts_parse_row_298_scan ts_parse_row_299_scan

end
