(* ===== verification/Parse_Table_3.thy ===== *)
theory Parse_Table_3
  imports Parse_Cells
begin

text \<open>
  The rows 300 to 449 of \<open>ts_parse_table\<close> in \<open>src/crates/tree-sitter/src/parser.c\<close>, and the check of each
  against the tokens of its mode.
\<close>

text \<open>Lines 89094 to 89209.\<close>

definition ts_parse_row_300 :: parse_row where
  "ts_parse_row_300 =
    [(sym_ERR_assign_func_call, 7530), (sym_ERR_unexpected_this_in_path, 2372),
     (sym_ERR_unexpected_super_in_path, 2372), (sym_ERR_fb_variables_after_method, 1341),
     (sym_ERR_var_access_not_allowed, 3160), (sym_ERR_var_config_not_allowed, 3160),
     (sym_ERR_var_global_not_allowed, 3160), (sym_ERR_method_decl_in_body, 3150),
     (sym_extern_pragma, 7490), (sym_wasm_pragma, 3150), (sym_warn_pragma, 7490),
     (sym_allow_pragma, 3140), (sym_test_pragma, 7490), (sym_once_pragma, 7490),
     (sym_must_call_pragma, 7490), (sym_export_pragma, 7490), (sym_pou_pragma, 7194),
     (sym_direct_variable, 7675), (sym_deref_expression, 2373), (sym_variable, 7599),
     (sym_var_access, 2373), (sym_in_out_decls, 3160), (sym_var_decls, 3160),
     (sym_retain_var_decls, 3160), (sym_temp_var_decls, 3160), (sym_external_var_decls, 3160),
     (sym_global_var_decls, 2947), (sym_loc_partly_var_decl, 3160), (sym__fb_variables, 586),
     (sym_fb_input_decls, 3160), (sym_fb_output_decls, 3160), (sym_no_retain_var_decls, 3160),
     (sym_fb_body, 10344), (sym_method_decl, 587), (sym_prog_access_decls, 3043), (sym_SFC, 7970),
     (sym_SFC_network, 7612), (sym_initial_step, 7439), (sym_config_init, 3047),
     (sym_using_directive, 2991), (sym_variable_access, 7530), (sym_func_call, 2961),
     (sym_stmt_list, 7970), (sym__stmt, 2024), (sym_assign, 3150), (sym_if_stmt, 3150),
     (sym_case_stmt, 3150), (sym_for_stmt, 3150), (sym_while_stmt, 3150), (sym_repeat_stmt, 3150),
     (sym_raise_stmt, 3150), (sym_try_stmt, 3150), (sym_ERR_clause_outside_try, 3150),
     (sym_begin_path_expression, 2943), (sym_invocation, 2934), (sym_any_invocation, 2935),
     (sym_this_invocation, 2641), (sym_super_invocation, 2641), (sym_super_body_invocation, 2935),
     (sym_path_expression, 2627), (sym_field_expression, 2373), (sym_index_expression, 2373),
     (sym_ladder_diagram, 7970), (sym_fb_diagram, 7970),
     (aux_sym_ERR_fb_variables_after_method_repeat1, 586), (aux_sym_func_decl_repeat1, 7194),
     (aux_sym_func_decl_repeat2, 2991), (aux_sym_fb_decl_repeat3, 587), (aux_sym_SFC_repeat1, 7612),
     (aux_sym_stmt_list_repeat1, 2024), (aux_sym_ladder_diagram_repeat1, 8009),
     (aux_sym_fb_diagram_repeat1, 8013), (sym_identifier, 298),
     (aux_sym_ERR_unexpected_this_in_path_token1, 304),
     (aux_sym_ERR_unexpected_super_in_path_token1, 306), (sym_line_comment, 3),
     (anon_sym_LBRACE, 308), (aux_sym_test_pragma_token1, 9), (aux_sym_once_pragma_token1, 11),
     (aux_sym_must_call_pragma_token1, 13), (aux_sym_export_pragma_token1, 15),
     (anon_sym_SEMI, 310), (anon_sym_PERCENT, 312), (aux_sym_input_decls_token1, 314),
     (aux_sym_output_decls_token1, 316), (aux_sym_in_out_decls_token1, 318),
     (aux_sym_var_decls_token1, 320), (aux_sym_temp_var_decls_token1, 322),
     (aux_sym_external_var_decls_token1, 324), (aux_sym_global_var_decls_token1, 326),
     (aux_sym_fb_decl_token4, 930), (aux_sym_method_decl_token1, 330),
     (aux_sym_prog_access_decls_token1, 332), (aux_sym_initial_step_token1, 334),
     (aux_sym_config_init_token1, 336), (aux_sym_using_directive_token1, 338),
     (aux_sym__stmt_token1, 340), (aux_sym__stmt_token2, 340), (aux_sym__stmt_token3, 340),
     (aux_sym_if_stmt_token1, 342), (aux_sym_case_stmt_token1, 344), (aux_sym_for_stmt_token1, 346),
     (aux_sym_while_stmt_token1, 348), (aux_sym_repeat_stmt_token1, 350),
     (aux_sym_raise_stmt_token1, 352), (aux_sym_try_stmt_token1, 354),
     (aux_sym_try_stmt_token2, 356), (aux_sym_catch_clause_token1, 356),
     (aux_sym_finally_clause_token1, 356), (sym_ld_rung, 358), (sym_fbd_network, 360),
     (sym_c_style_comment, 3), (sym_pascal_style_comment, 3), (sym_pragma, 3)]"

lemma ts_parse_row_300_scan: "row_scan tokens_63_2 0 ts_parse_row_300 = Some (Suc (Suc (Suc (Suc 0))))"
  unfolding ts_parse_row_300_def by simp

text \<open>Lines 89210 to 89325.\<close>

definition ts_parse_row_301 :: parse_row where
  "ts_parse_row_301 =
    [(sym_ERR_assign_func_call, 7530), (sym_ERR_unexpected_this_in_path, 2372),
     (sym_ERR_unexpected_super_in_path, 2372), (sym_ERR_fb_variables_after_method, 1422),
     (sym_ERR_var_access_not_allowed, 3160), (sym_ERR_var_config_not_allowed, 3160),
     (sym_ERR_var_global_not_allowed, 3160), (sym_ERR_method_decl_in_body, 3150),
     (sym_extern_pragma, 7490), (sym_wasm_pragma, 3150), (sym_warn_pragma, 7490),
     (sym_allow_pragma, 3140), (sym_test_pragma, 7490), (sym_once_pragma, 7490),
     (sym_must_call_pragma, 7490), (sym_export_pragma, 7490), (sym_pou_pragma, 7194),
     (sym_direct_variable, 7675), (sym_deref_expression, 2373), (sym_variable, 7599),
     (sym_var_access, 2373), (sym_in_out_decls, 3160), (sym_var_decls, 3160),
     (sym_retain_var_decls, 3160), (sym_temp_var_decls, 3160), (sym_external_var_decls, 3160),
     (sym_global_var_decls, 2947), (sym_loc_partly_var_decl, 3160), (sym__fb_variables, 879),
     (sym_fb_input_decls, 3160), (sym_fb_output_decls, 3160), (sym_no_retain_var_decls, 3160),
     (sym_fb_body, 10136), (sym_method_decl, 625), (sym_prog_access_decls, 3043), (sym_SFC, 7970),
     (sym_SFC_network, 7612), (sym_initial_step, 7439), (sym_config_init, 3047),
     (sym_using_directive, 2991), (sym_variable_access, 7530), (sym_func_call, 2961),
     (sym_stmt_list, 7970), (sym__stmt, 2024), (sym_assign, 3150), (sym_if_stmt, 3150),
     (sym_case_stmt, 3150), (sym_for_stmt, 3150), (sym_while_stmt, 3150), (sym_repeat_stmt, 3150),
     (sym_raise_stmt, 3150), (sym_try_stmt, 3150), (sym_ERR_clause_outside_try, 3150),
     (sym_begin_path_expression, 2943), (sym_invocation, 2934), (sym_any_invocation, 2935),
     (sym_this_invocation, 2641), (sym_super_invocation, 2641), (sym_super_body_invocation, 2935),
     (sym_path_expression, 2627), (sym_field_expression, 2373), (sym_index_expression, 2373),
     (sym_ladder_diagram, 7970), (sym_fb_diagram, 7970),
     (aux_sym_ERR_fb_variables_after_method_repeat1, 879), (aux_sym_func_decl_repeat1, 7194),
     (aux_sym_func_decl_repeat2, 2991), (aux_sym_fb_decl_repeat3, 625), (aux_sym_SFC_repeat1, 7612),
     (aux_sym_stmt_list_repeat1, 2024), (aux_sym_ladder_diagram_repeat1, 8009),
     (aux_sym_fb_diagram_repeat1, 8013), (sym_identifier, 298),
     (aux_sym_ERR_unexpected_this_in_path_token1, 304),
     (aux_sym_ERR_unexpected_super_in_path_token1, 306), (sym_line_comment, 3),
     (anon_sym_LBRACE, 308), (aux_sym_test_pragma_token1, 9), (aux_sym_once_pragma_token1, 11),
     (aux_sym_must_call_pragma_token1, 13), (aux_sym_export_pragma_token1, 15),
     (anon_sym_SEMI, 310), (anon_sym_PERCENT, 312), (aux_sym_input_decls_token1, 314),
     (aux_sym_output_decls_token1, 316), (aux_sym_in_out_decls_token1, 318),
     (aux_sym_var_decls_token1, 320), (aux_sym_temp_var_decls_token1, 322),
     (aux_sym_external_var_decls_token1, 324), (aux_sym_global_var_decls_token1, 326),
     (aux_sym_fb_decl_token4, 932), (aux_sym_method_decl_token1, 330),
     (aux_sym_prog_access_decls_token1, 332), (aux_sym_initial_step_token1, 334),
     (aux_sym_config_init_token1, 336), (aux_sym_using_directive_token1, 338),
     (aux_sym__stmt_token1, 340), (aux_sym__stmt_token2, 340), (aux_sym__stmt_token3, 340),
     (aux_sym_if_stmt_token1, 342), (aux_sym_case_stmt_token1, 344), (aux_sym_for_stmt_token1, 346),
     (aux_sym_while_stmt_token1, 348), (aux_sym_repeat_stmt_token1, 350),
     (aux_sym_raise_stmt_token1, 352), (aux_sym_try_stmt_token1, 354),
     (aux_sym_try_stmt_token2, 356), (aux_sym_catch_clause_token1, 356),
     (aux_sym_finally_clause_token1, 356), (sym_ld_rung, 358), (sym_fbd_network, 360),
     (sym_c_style_comment, 3), (sym_pascal_style_comment, 3), (sym_pragma, 3)]"

lemma ts_parse_row_301_scan: "row_scan tokens_63_2 0 ts_parse_row_301 = Some (Suc (Suc (Suc (Suc 0))))"
  unfolding ts_parse_row_301_def by simp

text \<open>Lines 89326 to 89441.\<close>

definition ts_parse_row_302 :: parse_row where
  "ts_parse_row_302 =
    [(sym_ERR_assign_func_call, 7530), (sym_ERR_unexpected_this_in_path, 2372),
     (sym_ERR_unexpected_super_in_path, 2372), (sym_ERR_fb_variables_after_method, 1855),
     (sym_ERR_var_access_not_allowed, 3160), (sym_ERR_var_config_not_allowed, 3160),
     (sym_ERR_var_global_not_allowed, 3160), (sym_ERR_method_decl_in_body, 3150),
     (sym_extern_pragma, 7490), (sym_wasm_pragma, 3150), (sym_warn_pragma, 7490),
     (sym_allow_pragma, 3140), (sym_test_pragma, 7490), (sym_once_pragma, 7490),
     (sym_must_call_pragma, 7490), (sym_export_pragma, 7490), (sym_pou_pragma, 7194),
     (sym_direct_variable, 7675), (sym_deref_expression, 2373), (sym_variable, 7599),
     (sym_var_access, 2373), (sym_in_out_decls, 3160), (sym_var_decls, 3160),
     (sym_retain_var_decls, 3160), (sym_temp_var_decls, 3160), (sym_external_var_decls, 3160),
     (sym_global_var_decls, 2947), (sym_loc_partly_var_decl, 3160), (sym__fb_variables, 853),
     (sym_fb_input_decls, 3160), (sym_fb_output_decls, 3160), (sym_no_retain_var_decls, 3160),
     (sym_fb_body, 9891), (sym_method_decl, 859), (sym_prog_access_decls, 3043), (sym_SFC, 7970),
     (sym_SFC_network, 7612), (sym_initial_step, 7439), (sym_config_init, 3047),
     (sym_using_directive, 2991), (sym_variable_access, 7530), (sym_func_call, 2961),
     (sym_stmt_list, 7970), (sym__stmt, 2024), (sym_assign, 3150), (sym_if_stmt, 3150),
     (sym_case_stmt, 3150), (sym_for_stmt, 3150), (sym_while_stmt, 3150), (sym_repeat_stmt, 3150),
     (sym_raise_stmt, 3150), (sym_try_stmt, 3150), (sym_ERR_clause_outside_try, 3150),
     (sym_begin_path_expression, 2943), (sym_invocation, 2934), (sym_any_invocation, 2935),
     (sym_this_invocation, 2641), (sym_super_invocation, 2641), (sym_super_body_invocation, 2935),
     (sym_path_expression, 2627), (sym_field_expression, 2373), (sym_index_expression, 2373),
     (sym_ladder_diagram, 7970), (sym_fb_diagram, 7970),
     (aux_sym_ERR_fb_variables_after_method_repeat1, 853), (aux_sym_func_decl_repeat1, 7194),
     (aux_sym_func_decl_repeat2, 2991), (aux_sym_fb_decl_repeat3, 859), (aux_sym_SFC_repeat1, 7612),
     (aux_sym_stmt_list_repeat1, 2024), (aux_sym_ladder_diagram_repeat1, 8009),
     (aux_sym_fb_diagram_repeat1, 8013), (sym_identifier, 298),
     (aux_sym_ERR_unexpected_this_in_path_token1, 304),
     (aux_sym_ERR_unexpected_super_in_path_token1, 306), (sym_line_comment, 3),
     (anon_sym_LBRACE, 308), (aux_sym_test_pragma_token1, 9), (aux_sym_once_pragma_token1, 11),
     (aux_sym_must_call_pragma_token1, 13), (aux_sym_export_pragma_token1, 15),
     (anon_sym_SEMI, 310), (anon_sym_PERCENT, 312), (aux_sym_input_decls_token1, 314),
     (aux_sym_output_decls_token1, 316), (aux_sym_in_out_decls_token1, 318),
     (aux_sym_var_decls_token1, 320), (aux_sym_temp_var_decls_token1, 322),
     (aux_sym_external_var_decls_token1, 324), (aux_sym_global_var_decls_token1, 326),
     (aux_sym_fb_decl_token4, 934), (aux_sym_method_decl_token1, 330),
     (aux_sym_prog_access_decls_token1, 332), (aux_sym_initial_step_token1, 334),
     (aux_sym_config_init_token1, 336), (aux_sym_using_directive_token1, 338),
     (aux_sym__stmt_token1, 340), (aux_sym__stmt_token2, 340), (aux_sym__stmt_token3, 340),
     (aux_sym_if_stmt_token1, 342), (aux_sym_case_stmt_token1, 344), (aux_sym_for_stmt_token1, 346),
     (aux_sym_while_stmt_token1, 348), (aux_sym_repeat_stmt_token1, 350),
     (aux_sym_raise_stmt_token1, 352), (aux_sym_try_stmt_token1, 354),
     (aux_sym_try_stmt_token2, 356), (aux_sym_catch_clause_token1, 356),
     (aux_sym_finally_clause_token1, 356), (sym_ld_rung, 358), (sym_fbd_network, 360),
     (sym_c_style_comment, 3), (sym_pascal_style_comment, 3), (sym_pragma, 3)]"

lemma ts_parse_row_302_scan: "row_scan tokens_63_2 0 ts_parse_row_302 = Some (Suc (Suc (Suc (Suc 0))))"
  unfolding ts_parse_row_302_def by simp

text \<open>Lines 89442 to 89557.\<close>

definition ts_parse_row_303 :: parse_row where
  "ts_parse_row_303 =
    [(sym_ERR_assign_func_call, 7530), (sym_ERR_unexpected_this_in_path, 2372),
     (sym_ERR_unexpected_super_in_path, 2372), (sym_ERR_fb_variables_after_method, 1226),
     (sym_ERR_var_access_not_allowed, 3160), (sym_ERR_var_config_not_allowed, 3160),
     (sym_ERR_var_global_not_allowed, 3160), (sym_ERR_method_decl_in_body, 3150),
     (sym_extern_pragma, 7490), (sym_wasm_pragma, 3150), (sym_warn_pragma, 7490),
     (sym_allow_pragma, 3140), (sym_test_pragma, 7490), (sym_once_pragma, 7490),
     (sym_must_call_pragma, 7490), (sym_export_pragma, 7490), (sym_pou_pragma, 7194),
     (sym_direct_variable, 7675), (sym_deref_expression, 2373), (sym_variable, 7599),
     (sym_var_access, 2373), (sym_in_out_decls, 3160), (sym_var_decls, 3160),
     (sym_retain_var_decls, 3160), (sym_temp_var_decls, 3160), (sym_external_var_decls, 3160),
     (sym_global_var_decls, 2947), (sym_loc_partly_var_decl, 3160), (sym__fb_variables, 573),
     (sym_fb_input_decls, 3160), (sym_fb_output_decls, 3160), (sym_no_retain_var_decls, 3160),
     (sym_fb_body, 9443), (sym_method_decl, 574), (sym_prog_access_decls, 3043), (sym_SFC, 7970),
     (sym_SFC_network, 7612), (sym_initial_step, 7439), (sym_config_init, 3047),
     (sym_using_directive, 2991), (sym_variable_access, 7530), (sym_func_call, 2961),
     (sym_stmt_list, 7970), (sym__stmt, 2024), (sym_assign, 3150), (sym_if_stmt, 3150),
     (sym_case_stmt, 3150), (sym_for_stmt, 3150), (sym_while_stmt, 3150), (sym_repeat_stmt, 3150),
     (sym_raise_stmt, 3150), (sym_try_stmt, 3150), (sym_ERR_clause_outside_try, 3150),
     (sym_begin_path_expression, 2943), (sym_invocation, 2934), (sym_any_invocation, 2935),
     (sym_this_invocation, 2641), (sym_super_invocation, 2641), (sym_super_body_invocation, 2935),
     (sym_path_expression, 2627), (sym_field_expression, 2373), (sym_index_expression, 2373),
     (sym_ladder_diagram, 7970), (sym_fb_diagram, 7970),
     (aux_sym_ERR_fb_variables_after_method_repeat1, 573), (aux_sym_func_decl_repeat1, 7194),
     (aux_sym_func_decl_repeat2, 2991), (aux_sym_fb_decl_repeat3, 574), (aux_sym_SFC_repeat1, 7612),
     (aux_sym_stmt_list_repeat1, 2024), (aux_sym_ladder_diagram_repeat1, 8009),
     (aux_sym_fb_diagram_repeat1, 8013), (sym_identifier, 298),
     (aux_sym_ERR_unexpected_this_in_path_token1, 304),
     (aux_sym_ERR_unexpected_super_in_path_token1, 306), (sym_line_comment, 3),
     (anon_sym_LBRACE, 308), (aux_sym_test_pragma_token1, 9), (aux_sym_once_pragma_token1, 11),
     (aux_sym_must_call_pragma_token1, 13), (aux_sym_export_pragma_token1, 15),
     (anon_sym_SEMI, 310), (anon_sym_PERCENT, 312), (aux_sym_input_decls_token1, 314),
     (aux_sym_output_decls_token1, 316), (aux_sym_in_out_decls_token1, 318),
     (aux_sym_var_decls_token1, 320), (aux_sym_temp_var_decls_token1, 322),
     (aux_sym_external_var_decls_token1, 324), (aux_sym_global_var_decls_token1, 326),
     (aux_sym_fb_decl_token4, 936), (aux_sym_method_decl_token1, 330),
     (aux_sym_prog_access_decls_token1, 332), (aux_sym_initial_step_token1, 334),
     (aux_sym_config_init_token1, 336), (aux_sym_using_directive_token1, 338),
     (aux_sym__stmt_token1, 340), (aux_sym__stmt_token2, 340), (aux_sym__stmt_token3, 340),
     (aux_sym_if_stmt_token1, 342), (aux_sym_case_stmt_token1, 344), (aux_sym_for_stmt_token1, 346),
     (aux_sym_while_stmt_token1, 348), (aux_sym_repeat_stmt_token1, 350),
     (aux_sym_raise_stmt_token1, 352), (aux_sym_try_stmt_token1, 354),
     (aux_sym_try_stmt_token2, 356), (aux_sym_catch_clause_token1, 356),
     (aux_sym_finally_clause_token1, 356), (sym_ld_rung, 358), (sym_fbd_network, 360),
     (sym_c_style_comment, 3), (sym_pascal_style_comment, 3), (sym_pragma, 3)]"

lemma ts_parse_row_303_scan: "row_scan tokens_63_2 0 ts_parse_row_303 = Some (Suc (Suc (Suc (Suc 0))))"
  unfolding ts_parse_row_303_def by simp

text \<open>Lines 89558 to 89673.\<close>

definition ts_parse_row_304 :: parse_row where
  "ts_parse_row_304 =
    [(sym_ERR_assign_func_call, 7530), (sym_ERR_unexpected_this_in_path, 2372),
     (sym_ERR_unexpected_super_in_path, 2372), (sym_ERR_fb_variables_after_method, 1248),
     (sym_ERR_var_access_not_allowed, 3160), (sym_ERR_var_config_not_allowed, 3160),
     (sym_ERR_var_global_not_allowed, 3160), (sym_ERR_method_decl_in_body, 3150),
     (sym_extern_pragma, 7490), (sym_wasm_pragma, 3150), (sym_warn_pragma, 7490),
     (sym_allow_pragma, 3140), (sym_test_pragma, 7490), (sym_once_pragma, 7490),
     (sym_must_call_pragma, 7490), (sym_export_pragma, 7490), (sym_pou_pragma, 7194),
     (sym_direct_variable, 7675), (sym_deref_expression, 2373), (sym_variable, 7599),
     (sym_var_access, 2373), (sym_in_out_decls, 3160), (sym_var_decls, 3160),
     (sym_retain_var_decls, 3160), (sym_temp_var_decls, 3160), (sym_external_var_decls, 3160),
     (sym_global_var_decls, 2947), (sym_loc_partly_var_decl, 3160), (sym__fb_variables, 521),
     (sym_fb_input_decls, 3160), (sym_fb_output_decls, 3160), (sym_no_retain_var_decls, 3160),
     (sym_fb_body, 8778), (sym_method_decl, 522), (sym_prog_access_decls, 3043), (sym_SFC, 7970),
     (sym_SFC_network, 7612), (sym_initial_step, 7439), (sym_config_init, 3047),
     (sym_using_directive, 2991), (sym_variable_access, 7530), (sym_func_call, 2961),
     (sym_stmt_list, 7970), (sym__stmt, 2024), (sym_assign, 3150), (sym_if_stmt, 3150),
     (sym_case_stmt, 3150), (sym_for_stmt, 3150), (sym_while_stmt, 3150), (sym_repeat_stmt, 3150),
     (sym_raise_stmt, 3150), (sym_try_stmt, 3150), (sym_ERR_clause_outside_try, 3150),
     (sym_begin_path_expression, 2943), (sym_invocation, 2934), (sym_any_invocation, 2935),
     (sym_this_invocation, 2641), (sym_super_invocation, 2641), (sym_super_body_invocation, 2935),
     (sym_path_expression, 2627), (sym_field_expression, 2373), (sym_index_expression, 2373),
     (sym_ladder_diagram, 7970), (sym_fb_diagram, 7970),
     (aux_sym_ERR_fb_variables_after_method_repeat1, 521), (aux_sym_func_decl_repeat1, 7194),
     (aux_sym_func_decl_repeat2, 2991), (aux_sym_fb_decl_repeat3, 522), (aux_sym_SFC_repeat1, 7612),
     (aux_sym_stmt_list_repeat1, 2024), (aux_sym_ladder_diagram_repeat1, 8009),
     (aux_sym_fb_diagram_repeat1, 8013), (sym_identifier, 298),
     (aux_sym_ERR_unexpected_this_in_path_token1, 304),
     (aux_sym_ERR_unexpected_super_in_path_token1, 306), (sym_line_comment, 3),
     (anon_sym_LBRACE, 308), (aux_sym_test_pragma_token1, 9), (aux_sym_once_pragma_token1, 11),
     (aux_sym_must_call_pragma_token1, 13), (aux_sym_export_pragma_token1, 15),
     (anon_sym_SEMI, 310), (anon_sym_PERCENT, 312), (aux_sym_input_decls_token1, 314),
     (aux_sym_output_decls_token1, 316), (aux_sym_in_out_decls_token1, 318),
     (aux_sym_var_decls_token1, 320), (aux_sym_temp_var_decls_token1, 322),
     (aux_sym_external_var_decls_token1, 324), (aux_sym_global_var_decls_token1, 326),
     (aux_sym_fb_decl_token4, 938), (aux_sym_method_decl_token1, 330),
     (aux_sym_prog_access_decls_token1, 332), (aux_sym_initial_step_token1, 334),
     (aux_sym_config_init_token1, 336), (aux_sym_using_directive_token1, 338),
     (aux_sym__stmt_token1, 340), (aux_sym__stmt_token2, 340), (aux_sym__stmt_token3, 340),
     (aux_sym_if_stmt_token1, 342), (aux_sym_case_stmt_token1, 344), (aux_sym_for_stmt_token1, 346),
     (aux_sym_while_stmt_token1, 348), (aux_sym_repeat_stmt_token1, 350),
     (aux_sym_raise_stmt_token1, 352), (aux_sym_try_stmt_token1, 354),
     (aux_sym_try_stmt_token2, 356), (aux_sym_catch_clause_token1, 356),
     (aux_sym_finally_clause_token1, 356), (sym_ld_rung, 358), (sym_fbd_network, 360),
     (sym_c_style_comment, 3), (sym_pascal_style_comment, 3), (sym_pragma, 3)]"

lemma ts_parse_row_304_scan: "row_scan tokens_63_2 0 ts_parse_row_304 = Some (Suc (Suc (Suc (Suc 0))))"
  unfolding ts_parse_row_304_def by simp

text \<open>Lines 89674 to 89786.\<close>

definition ts_parse_row_305 :: parse_row where
  "ts_parse_row_305 =
    [(sym_ERR_assign_func_call, 7530), (sym_ERR_unexpected_this_in_path, 2372),
     (sym_ERR_unexpected_super_in_path, 2372), (sym_ERR_fb_variables_after_method, 1826),
     (sym_ERR_var_access_not_allowed, 3160), (sym_ERR_var_config_not_allowed, 3160),
     (sym_ERR_var_global_not_allowed, 3160), (sym_ERR_method_decl_in_body, 3150),
     (sym_extern_pragma, 7490), (sym_wasm_pragma, 3150), (sym_warn_pragma, 7490),
     (sym_allow_pragma, 3140), (sym_test_pragma, 7490), (sym_once_pragma, 7490),
     (sym_must_call_pragma, 7490), (sym_export_pragma, 7490), (sym_pou_pragma, 7194),
     (sym_direct_variable, 7675), (sym_deref_expression, 2373), (sym_variable, 7599),
     (sym_var_access, 2373), (sym_in_out_decls, 3160), (sym_var_decls, 3160),
     (sym_retain_var_decls, 3160), (sym_temp_var_decls, 3160), (sym_external_var_decls, 3160),
     (sym_global_var_decls, 2947), (sym_loc_partly_var_decl, 3160), (sym__fb_variables, 2343),
     (sym_fb_input_decls, 3160), (sym_fb_output_decls, 3160), (sym_no_retain_var_decls, 3160),
     (sym_fb_body, 8824), (sym_method_decl, 2549), (sym_prog_access_decls, 3043), (sym_SFC, 7970),
     (sym_SFC_network, 7612), (sym_initial_step, 7439), (sym_config_init, 3047),
     (sym_variable_access, 7530), (sym_func_call, 2961), (sym_stmt_list, 7970), (sym__stmt, 2024),
     (sym_assign, 3150), (sym_if_stmt, 3150), (sym_case_stmt, 3150), (sym_for_stmt, 3150),
     (sym_while_stmt, 3150), (sym_repeat_stmt, 3150), (sym_raise_stmt, 3150), (sym_try_stmt, 3150),
     (sym_ERR_clause_outside_try, 3150), (sym_begin_path_expression, 2943), (sym_invocation, 2934),
     (sym_any_invocation, 2935), (sym_this_invocation, 2641), (sym_super_invocation, 2641),
     (sym_super_body_invocation, 2935), (sym_path_expression, 2627), (sym_field_expression, 2373),
     (sym_index_expression, 2373), (sym_ladder_diagram, 7970), (sym_fb_diagram, 7970),
     (aux_sym_ERR_fb_variables_after_method_repeat1, 2343), (aux_sym_func_decl_repeat1, 7194),
     (aux_sym_fb_decl_repeat3, 2549), (aux_sym_SFC_repeat1, 7612),
     (aux_sym_stmt_list_repeat1, 2024), (aux_sym_ladder_diagram_repeat1, 8009),
     (aux_sym_fb_diagram_repeat1, 8013), (sym_identifier, 298),
     (aux_sym_ERR_unexpected_this_in_path_token1, 304),
     (aux_sym_ERR_unexpected_super_in_path_token1, 306), (sym_line_comment, 3),
     (anon_sym_LBRACE, 308), (aux_sym_test_pragma_token1, 9), (aux_sym_once_pragma_token1, 11),
     (aux_sym_must_call_pragma_token1, 13), (aux_sym_export_pragma_token1, 15),
     (anon_sym_SEMI, 310), (anon_sym_PERCENT, 312), (aux_sym_input_decls_token1, 314),
     (aux_sym_output_decls_token1, 316), (aux_sym_in_out_decls_token1, 318),
     (aux_sym_var_decls_token1, 320), (aux_sym_temp_var_decls_token1, 322),
     (aux_sym_external_var_decls_token1, 324), (aux_sym_global_var_decls_token1, 326),
     (aux_sym_fb_decl_token4, 940), (aux_sym_method_decl_token1, 330),
     (aux_sym_prog_access_decls_token1, 332), (aux_sym_initial_step_token1, 334),
     (aux_sym_config_init_token1, 336), (aux_sym__stmt_token1, 340), (aux_sym__stmt_token2, 340),
     (aux_sym__stmt_token3, 340), (aux_sym_if_stmt_token1, 342), (aux_sym_case_stmt_token1, 344),
     (aux_sym_for_stmt_token1, 346), (aux_sym_while_stmt_token1, 348),
     (aux_sym_repeat_stmt_token1, 350), (aux_sym_raise_stmt_token1, 352),
     (aux_sym_try_stmt_token1, 354), (aux_sym_try_stmt_token2, 356),
     (aux_sym_catch_clause_token1, 356), (aux_sym_finally_clause_token1, 356), (sym_ld_rung, 358),
     (sym_fbd_network, 360), (sym_c_style_comment, 3), (sym_pascal_style_comment, 3),
     (sym_pragma, 3)]"

lemma ts_parse_row_305_scan: "row_scan tokens_63_2 0 ts_parse_row_305 = Some (Suc (Suc (Suc (Suc 0))))"
  unfolding ts_parse_row_305_def by simp

text \<open>Lines 89787 to 89899.\<close>

definition ts_parse_row_306 :: parse_row where
  "ts_parse_row_306 =
    [(sym_ERR_assign_func_call, 7530), (sym_ERR_unexpected_this_in_path, 2372),
     (sym_ERR_unexpected_super_in_path, 2372), (sym_ERR_fb_variables_after_method, 1928),
     (sym_ERR_var_access_not_allowed, 3160), (sym_ERR_var_config_not_allowed, 3160),
     (sym_ERR_var_global_not_allowed, 3160), (sym_ERR_method_decl_in_body, 3150),
     (sym_extern_pragma, 7490), (sym_wasm_pragma, 3150), (sym_warn_pragma, 7490),
     (sym_allow_pragma, 3140), (sym_test_pragma, 7490), (sym_once_pragma, 7490),
     (sym_must_call_pragma, 7490), (sym_export_pragma, 7490), (sym_pou_pragma, 7194),
     (sym_direct_variable, 7675), (sym_deref_expression, 2373), (sym_variable, 7599),
     (sym_var_access, 2373), (sym_in_out_decls, 3160), (sym_var_decls, 3160),
     (sym_retain_var_decls, 3160), (sym_temp_var_decls, 3160), (sym_external_var_decls, 3160),
     (sym_global_var_decls, 2947), (sym_loc_partly_var_decl, 3160), (sym__fb_variables, 2347),
     (sym_fb_input_decls, 3160), (sym_fb_output_decls, 3160), (sym_no_retain_var_decls, 3160),
     (sym_fb_body, 9322), (sym_method_decl, 449), (sym_prog_access_decls, 3043), (sym_SFC, 7970),
     (sym_SFC_network, 7612), (sym_initial_step, 7439), (sym_config_init, 3047),
     (sym_variable_access, 7530), (sym_func_call, 2961), (sym_stmt_list, 7970), (sym__stmt, 2024),
     (sym_assign, 3150), (sym_if_stmt, 3150), (sym_case_stmt, 3150), (sym_for_stmt, 3150),
     (sym_while_stmt, 3150), (sym_repeat_stmt, 3150), (sym_raise_stmt, 3150), (sym_try_stmt, 3150),
     (sym_ERR_clause_outside_try, 3150), (sym_begin_path_expression, 2943), (sym_invocation, 2934),
     (sym_any_invocation, 2935), (sym_this_invocation, 2641), (sym_super_invocation, 2641),
     (sym_super_body_invocation, 2935), (sym_path_expression, 2627), (sym_field_expression, 2373),
     (sym_index_expression, 2373), (sym_ladder_diagram, 7970), (sym_fb_diagram, 7970),
     (aux_sym_ERR_fb_variables_after_method_repeat1, 2347), (aux_sym_func_decl_repeat1, 7194),
     (aux_sym_fb_decl_repeat3, 449), (aux_sym_SFC_repeat1, 7612), (aux_sym_stmt_list_repeat1, 2024),
     (aux_sym_ladder_diagram_repeat1, 8009), (aux_sym_fb_diagram_repeat1, 8013),
     (sym_identifier, 298), (aux_sym_ERR_unexpected_this_in_path_token1, 304),
     (aux_sym_ERR_unexpected_super_in_path_token1, 306), (sym_line_comment, 3),
     (anon_sym_LBRACE, 308), (aux_sym_test_pragma_token1, 9), (aux_sym_once_pragma_token1, 11),
     (aux_sym_must_call_pragma_token1, 13), (aux_sym_export_pragma_token1, 15),
     (anon_sym_SEMI, 310), (anon_sym_PERCENT, 312), (aux_sym_input_decls_token1, 314),
     (aux_sym_output_decls_token1, 316), (aux_sym_in_out_decls_token1, 318),
     (aux_sym_var_decls_token1, 320), (aux_sym_temp_var_decls_token1, 322),
     (aux_sym_external_var_decls_token1, 324), (aux_sym_global_var_decls_token1, 326),
     (aux_sym_fb_decl_token4, 942), (aux_sym_method_decl_token1, 330),
     (aux_sym_prog_access_decls_token1, 332), (aux_sym_initial_step_token1, 334),
     (aux_sym_config_init_token1, 336), (aux_sym__stmt_token1, 340), (aux_sym__stmt_token2, 340),
     (aux_sym__stmt_token3, 340), (aux_sym_if_stmt_token1, 342), (aux_sym_case_stmt_token1, 344),
     (aux_sym_for_stmt_token1, 346), (aux_sym_while_stmt_token1, 348),
     (aux_sym_repeat_stmt_token1, 350), (aux_sym_raise_stmt_token1, 352),
     (aux_sym_try_stmt_token1, 354), (aux_sym_try_stmt_token2, 356),
     (aux_sym_catch_clause_token1, 356), (aux_sym_finally_clause_token1, 356), (sym_ld_rung, 358),
     (sym_fbd_network, 360), (sym_c_style_comment, 3), (sym_pascal_style_comment, 3),
     (sym_pragma, 3)]"

lemma ts_parse_row_306_scan: "row_scan tokens_63_2 0 ts_parse_row_306 = Some (Suc (Suc (Suc (Suc 0))))"
  unfolding ts_parse_row_306_def by simp

text \<open>Lines 89900 to 90012.\<close>

definition ts_parse_row_307 :: parse_row where
  "ts_parse_row_307 =
    [(sym_ERR_assign_func_call, 7530), (sym_ERR_unexpected_this_in_path, 2372),
     (sym_ERR_unexpected_super_in_path, 2372), (sym_ERR_fb_variables_after_method, 1326),
     (sym_ERR_var_access_not_allowed, 3160), (sym_ERR_var_config_not_allowed, 3160),
     (sym_ERR_var_global_not_allowed, 3160), (sym_ERR_method_decl_in_body, 3150),
     (sym_extern_pragma, 7490), (sym_wasm_pragma, 3150), (sym_warn_pragma, 7490),
     (sym_allow_pragma, 3140), (sym_test_pragma, 7490), (sym_once_pragma, 7490),
     (sym_must_call_pragma, 7490), (sym_export_pragma, 7490), (sym_pou_pragma, 7194),
     (sym_direct_variable, 7675), (sym_deref_expression, 2373), (sym_variable, 7599),
     (sym_var_access, 2373), (sym_in_out_decls, 3160), (sym_var_decls, 3160),
     (sym_retain_var_decls, 3160), (sym_temp_var_decls, 3160), (sym_external_var_decls, 3160),
     (sym_global_var_decls, 2947), (sym_loc_partly_var_decl, 3160), (sym__fb_variables, 2343),
     (sym_fb_input_decls, 3160), (sym_fb_output_decls, 3160), (sym_no_retain_var_decls, 3160),
     (sym_fb_body, 10394), (sym_method_decl, 2549), (sym_prog_access_decls, 3043), (sym_SFC, 7970),
     (sym_SFC_network, 7612), (sym_initial_step, 7439), (sym_config_init, 3047),
     (sym_variable_access, 7530), (sym_func_call, 2961), (sym_stmt_list, 7970), (sym__stmt, 2024),
     (sym_assign, 3150), (sym_if_stmt, 3150), (sym_case_stmt, 3150), (sym_for_stmt, 3150),
     (sym_while_stmt, 3150), (sym_repeat_stmt, 3150), (sym_raise_stmt, 3150), (sym_try_stmt, 3150),
     (sym_ERR_clause_outside_try, 3150), (sym_begin_path_expression, 2943), (sym_invocation, 2934),
     (sym_any_invocation, 2935), (sym_this_invocation, 2641), (sym_super_invocation, 2641),
     (sym_super_body_invocation, 2935), (sym_path_expression, 2627), (sym_field_expression, 2373),
     (sym_index_expression, 2373), (sym_ladder_diagram, 7970), (sym_fb_diagram, 7970),
     (aux_sym_ERR_fb_variables_after_method_repeat1, 2343), (aux_sym_func_decl_repeat1, 7194),
     (aux_sym_fb_decl_repeat3, 2549), (aux_sym_SFC_repeat1, 7612),
     (aux_sym_stmt_list_repeat1, 2024), (aux_sym_ladder_diagram_repeat1, 8009),
     (aux_sym_fb_diagram_repeat1, 8013), (sym_identifier, 298),
     (aux_sym_ERR_unexpected_this_in_path_token1, 304),
     (aux_sym_ERR_unexpected_super_in_path_token1, 306), (sym_line_comment, 3),
     (anon_sym_LBRACE, 308), (aux_sym_test_pragma_token1, 9), (aux_sym_once_pragma_token1, 11),
     (aux_sym_must_call_pragma_token1, 13), (aux_sym_export_pragma_token1, 15),
     (anon_sym_SEMI, 310), (anon_sym_PERCENT, 312), (aux_sym_input_decls_token1, 314),
     (aux_sym_output_decls_token1, 316), (aux_sym_in_out_decls_token1, 318),
     (aux_sym_var_decls_token1, 320), (aux_sym_temp_var_decls_token1, 322),
     (aux_sym_external_var_decls_token1, 324), (aux_sym_global_var_decls_token1, 326),
     (aux_sym_fb_decl_token4, 944), (aux_sym_method_decl_token1, 330),
     (aux_sym_prog_access_decls_token1, 332), (aux_sym_initial_step_token1, 334),
     (aux_sym_config_init_token1, 336), (aux_sym__stmt_token1, 340), (aux_sym__stmt_token2, 340),
     (aux_sym__stmt_token3, 340), (aux_sym_if_stmt_token1, 342), (aux_sym_case_stmt_token1, 344),
     (aux_sym_for_stmt_token1, 346), (aux_sym_while_stmt_token1, 348),
     (aux_sym_repeat_stmt_token1, 350), (aux_sym_raise_stmt_token1, 352),
     (aux_sym_try_stmt_token1, 354), (aux_sym_try_stmt_token2, 356),
     (aux_sym_catch_clause_token1, 356), (aux_sym_finally_clause_token1, 356), (sym_ld_rung, 358),
     (sym_fbd_network, 360), (sym_c_style_comment, 3), (sym_pascal_style_comment, 3),
     (sym_pragma, 3)]"

lemma ts_parse_row_307_scan: "row_scan tokens_63_2 0 ts_parse_row_307 = Some (Suc (Suc (Suc (Suc 0))))"
  unfolding ts_parse_row_307_def by simp

text \<open>Lines 90013 to 90125.\<close>

definition ts_parse_row_308 :: parse_row where
  "ts_parse_row_308 =
    [(sym_ERR_assign_func_call, 7530), (sym_ERR_unexpected_this_in_path, 2372),
     (sym_ERR_unexpected_super_in_path, 2372), (sym_ERR_fb_variables_after_method, 1327),
     (sym_ERR_var_access_not_allowed, 3160), (sym_ERR_var_config_not_allowed, 3160),
     (sym_ERR_var_global_not_allowed, 3160), (sym_ERR_method_decl_in_body, 3150),
     (sym_extern_pragma, 7490), (sym_wasm_pragma, 3150), (sym_warn_pragma, 7490),
     (sym_allow_pragma, 3140), (sym_test_pragma, 7490), (sym_once_pragma, 7490),
     (sym_must_call_pragma, 7490), (sym_export_pragma, 7490), (sym_pou_pragma, 7194),
     (sym_direct_variable, 7675), (sym_deref_expression, 2373), (sym_variable, 7599),
     (sym_var_access, 2373), (sym_in_out_decls, 3160), (sym_var_decls, 3160),
     (sym_retain_var_decls, 3160), (sym_temp_var_decls, 3160), (sym_external_var_decls, 3160),
     (sym_global_var_decls, 2947), (sym_loc_partly_var_decl, 3160), (sym__fb_variables, 2347),
     (sym_fb_input_decls, 3160), (sym_fb_output_decls, 3160), (sym_no_retain_var_decls, 3160),
     (sym_fb_body, 10430), (sym_method_decl, 849), (sym_prog_access_decls, 3043), (sym_SFC, 7970),
     (sym_SFC_network, 7612), (sym_initial_step, 7439), (sym_config_init, 3047),
     (sym_variable_access, 7530), (sym_func_call, 2961), (sym_stmt_list, 7970), (sym__stmt, 2024),
     (sym_assign, 3150), (sym_if_stmt, 3150), (sym_case_stmt, 3150), (sym_for_stmt, 3150),
     (sym_while_stmt, 3150), (sym_repeat_stmt, 3150), (sym_raise_stmt, 3150), (sym_try_stmt, 3150),
     (sym_ERR_clause_outside_try, 3150), (sym_begin_path_expression, 2943), (sym_invocation, 2934),
     (sym_any_invocation, 2935), (sym_this_invocation, 2641), (sym_super_invocation, 2641),
     (sym_super_body_invocation, 2935), (sym_path_expression, 2627), (sym_field_expression, 2373),
     (sym_index_expression, 2373), (sym_ladder_diagram, 7970), (sym_fb_diagram, 7970),
     (aux_sym_ERR_fb_variables_after_method_repeat1, 2347), (aux_sym_func_decl_repeat1, 7194),
     (aux_sym_fb_decl_repeat3, 849), (aux_sym_SFC_repeat1, 7612), (aux_sym_stmt_list_repeat1, 2024),
     (aux_sym_ladder_diagram_repeat1, 8009), (aux_sym_fb_diagram_repeat1, 8013),
     (sym_identifier, 298), (aux_sym_ERR_unexpected_this_in_path_token1, 304),
     (aux_sym_ERR_unexpected_super_in_path_token1, 306), (sym_line_comment, 3),
     (anon_sym_LBRACE, 308), (aux_sym_test_pragma_token1, 9), (aux_sym_once_pragma_token1, 11),
     (aux_sym_must_call_pragma_token1, 13), (aux_sym_export_pragma_token1, 15),
     (anon_sym_SEMI, 310), (anon_sym_PERCENT, 312), (aux_sym_input_decls_token1, 314),
     (aux_sym_output_decls_token1, 316), (aux_sym_in_out_decls_token1, 318),
     (aux_sym_var_decls_token1, 320), (aux_sym_temp_var_decls_token1, 322),
     (aux_sym_external_var_decls_token1, 324), (aux_sym_global_var_decls_token1, 326),
     (aux_sym_fb_decl_token4, 946), (aux_sym_method_decl_token1, 330),
     (aux_sym_prog_access_decls_token1, 332), (aux_sym_initial_step_token1, 334),
     (aux_sym_config_init_token1, 336), (aux_sym__stmt_token1, 340), (aux_sym__stmt_token2, 340),
     (aux_sym__stmt_token3, 340), (aux_sym_if_stmt_token1, 342), (aux_sym_case_stmt_token1, 344),
     (aux_sym_for_stmt_token1, 346), (aux_sym_while_stmt_token1, 348),
     (aux_sym_repeat_stmt_token1, 350), (aux_sym_raise_stmt_token1, 352),
     (aux_sym_try_stmt_token1, 354), (aux_sym_try_stmt_token2, 356),
     (aux_sym_catch_clause_token1, 356), (aux_sym_finally_clause_token1, 356), (sym_ld_rung, 358),
     (sym_fbd_network, 360), (sym_c_style_comment, 3), (sym_pascal_style_comment, 3),
     (sym_pragma, 3)]"

lemma ts_parse_row_308_scan: "row_scan tokens_63_2 0 ts_parse_row_308 = Some (Suc (Suc (Suc (Suc 0))))"
  unfolding ts_parse_row_308_def by simp

text \<open>Lines 90126 to 90238.\<close>

definition ts_parse_row_309 :: parse_row where
  "ts_parse_row_309 =
    [(sym_ERR_assign_func_call, 7530), (sym_ERR_unexpected_this_in_path, 2372),
     (sym_ERR_unexpected_super_in_path, 2372), (sym_ERR_fb_variables_after_method, 1931),
     (sym_ERR_var_access_not_allowed, 3160), (sym_ERR_var_config_not_allowed, 3160),
     (sym_ERR_var_global_not_allowed, 3160), (sym_ERR_method_decl_in_body, 3150),
     (sym_extern_pragma, 7490), (sym_wasm_pragma, 3150), (sym_warn_pragma, 7490),
     (sym_allow_pragma, 3140), (sym_test_pragma, 7490), (sym_once_pragma, 7490),
     (sym_must_call_pragma, 7490), (sym_export_pragma, 7490), (sym_pou_pragma, 7194),
     (sym_direct_variable, 7675), (sym_deref_expression, 2373), (sym_variable, 7599),
     (sym_var_access, 2373), (sym_in_out_decls, 3160), (sym_var_decls, 3160),
     (sym_retain_var_decls, 3160), (sym_temp_var_decls, 3160), (sym_external_var_decls, 3160),
     (sym_global_var_decls, 2947), (sym_loc_partly_var_decl, 3160), (sym__fb_variables, 2343),
     (sym_fb_input_decls, 3160), (sym_fb_output_decls, 3160), (sym_no_retain_var_decls, 3160),
     (sym_fb_body, 9382), (sym_method_decl, 2549), (sym_prog_access_decls, 3043), (sym_SFC, 7970),
     (sym_SFC_network, 7612), (sym_initial_step, 7439), (sym_config_init, 3047),
     (sym_variable_access, 7530), (sym_func_call, 2961), (sym_stmt_list, 7970), (sym__stmt, 2024),
     (sym_assign, 3150), (sym_if_stmt, 3150), (sym_case_stmt, 3150), (sym_for_stmt, 3150),
     (sym_while_stmt, 3150), (sym_repeat_stmt, 3150), (sym_raise_stmt, 3150), (sym_try_stmt, 3150),
     (sym_ERR_clause_outside_try, 3150), (sym_begin_path_expression, 2943), (sym_invocation, 2934),
     (sym_any_invocation, 2935), (sym_this_invocation, 2641), (sym_super_invocation, 2641),
     (sym_super_body_invocation, 2935), (sym_path_expression, 2627), (sym_field_expression, 2373),
     (sym_index_expression, 2373), (sym_ladder_diagram, 7970), (sym_fb_diagram, 7970),
     (aux_sym_ERR_fb_variables_after_method_repeat1, 2343), (aux_sym_func_decl_repeat1, 7194),
     (aux_sym_fb_decl_repeat3, 2549), (aux_sym_SFC_repeat1, 7612),
     (aux_sym_stmt_list_repeat1, 2024), (aux_sym_ladder_diagram_repeat1, 8009),
     (aux_sym_fb_diagram_repeat1, 8013), (sym_identifier, 298),
     (aux_sym_ERR_unexpected_this_in_path_token1, 304),
     (aux_sym_ERR_unexpected_super_in_path_token1, 306), (sym_line_comment, 3),
     (anon_sym_LBRACE, 308), (aux_sym_test_pragma_token1, 9), (aux_sym_once_pragma_token1, 11),
     (aux_sym_must_call_pragma_token1, 13), (aux_sym_export_pragma_token1, 15),
     (anon_sym_SEMI, 310), (anon_sym_PERCENT, 312), (aux_sym_input_decls_token1, 314),
     (aux_sym_output_decls_token1, 316), (aux_sym_in_out_decls_token1, 318),
     (aux_sym_var_decls_token1, 320), (aux_sym_temp_var_decls_token1, 322),
     (aux_sym_external_var_decls_token1, 324), (aux_sym_global_var_decls_token1, 326),
     (aux_sym_fb_decl_token4, 948), (aux_sym_method_decl_token1, 330),
     (aux_sym_prog_access_decls_token1, 332), (aux_sym_initial_step_token1, 334),
     (aux_sym_config_init_token1, 336), (aux_sym__stmt_token1, 340), (aux_sym__stmt_token2, 340),
     (aux_sym__stmt_token3, 340), (aux_sym_if_stmt_token1, 342), (aux_sym_case_stmt_token1, 344),
     (aux_sym_for_stmt_token1, 346), (aux_sym_while_stmt_token1, 348),
     (aux_sym_repeat_stmt_token1, 350), (aux_sym_raise_stmt_token1, 352),
     (aux_sym_try_stmt_token1, 354), (aux_sym_try_stmt_token2, 356),
     (aux_sym_catch_clause_token1, 356), (aux_sym_finally_clause_token1, 356), (sym_ld_rung, 358),
     (sym_fbd_network, 360), (sym_c_style_comment, 3), (sym_pascal_style_comment, 3),
     (sym_pragma, 3)]"

lemma ts_parse_row_309_scan: "row_scan tokens_63_2 0 ts_parse_row_309 = Some (Suc (Suc (Suc (Suc 0))))"
  unfolding ts_parse_row_309_def by simp

text \<open>Lines 90239 to 90351.\<close>

definition ts_parse_row_310 :: parse_row where
  "ts_parse_row_310 =
    [(sym_ERR_assign_func_call, 7530), (sym_ERR_unexpected_this_in_path, 2372),
     (sym_ERR_unexpected_super_in_path, 2372), (sym_ERR_fb_variables_after_method, 1932),
     (sym_ERR_var_access_not_allowed, 3160), (sym_ERR_var_config_not_allowed, 3160),
     (sym_ERR_var_global_not_allowed, 3160), (sym_ERR_method_decl_in_body, 3150),
     (sym_extern_pragma, 7490), (sym_wasm_pragma, 3150), (sym_warn_pragma, 7490),
     (sym_allow_pragma, 3140), (sym_test_pragma, 7490), (sym_once_pragma, 7490),
     (sym_must_call_pragma, 7490), (sym_export_pragma, 7490), (sym_pou_pragma, 7194),
     (sym_direct_variable, 7675), (sym_deref_expression, 2373), (sym_variable, 7599),
     (sym_var_access, 2373), (sym_in_out_decls, 3160), (sym_var_decls, 3160),
     (sym_retain_var_decls, 3160), (sym_temp_var_decls, 3160), (sym_external_var_decls, 3160),
     (sym_global_var_decls, 2947), (sym_loc_partly_var_decl, 3160), (sym__fb_variables, 2347),
     (sym_fb_input_decls, 3160), (sym_fb_output_decls, 3160), (sym_no_retain_var_decls, 3160),
     (sym_fb_body, 9426), (sym_method_decl, 455), (sym_prog_access_decls, 3043), (sym_SFC, 7970),
     (sym_SFC_network, 7612), (sym_initial_step, 7439), (sym_config_init, 3047),
     (sym_variable_access, 7530), (sym_func_call, 2961), (sym_stmt_list, 7970), (sym__stmt, 2024),
     (sym_assign, 3150), (sym_if_stmt, 3150), (sym_case_stmt, 3150), (sym_for_stmt, 3150),
     (sym_while_stmt, 3150), (sym_repeat_stmt, 3150), (sym_raise_stmt, 3150), (sym_try_stmt, 3150),
     (sym_ERR_clause_outside_try, 3150), (sym_begin_path_expression, 2943), (sym_invocation, 2934),
     (sym_any_invocation, 2935), (sym_this_invocation, 2641), (sym_super_invocation, 2641),
     (sym_super_body_invocation, 2935), (sym_path_expression, 2627), (sym_field_expression, 2373),
     (sym_index_expression, 2373), (sym_ladder_diagram, 7970), (sym_fb_diagram, 7970),
     (aux_sym_ERR_fb_variables_after_method_repeat1, 2347), (aux_sym_func_decl_repeat1, 7194),
     (aux_sym_fb_decl_repeat3, 455), (aux_sym_SFC_repeat1, 7612), (aux_sym_stmt_list_repeat1, 2024),
     (aux_sym_ladder_diagram_repeat1, 8009), (aux_sym_fb_diagram_repeat1, 8013),
     (sym_identifier, 298), (aux_sym_ERR_unexpected_this_in_path_token1, 304),
     (aux_sym_ERR_unexpected_super_in_path_token1, 306), (sym_line_comment, 3),
     (anon_sym_LBRACE, 308), (aux_sym_test_pragma_token1, 9), (aux_sym_once_pragma_token1, 11),
     (aux_sym_must_call_pragma_token1, 13), (aux_sym_export_pragma_token1, 15),
     (anon_sym_SEMI, 310), (anon_sym_PERCENT, 312), (aux_sym_input_decls_token1, 314),
     (aux_sym_output_decls_token1, 316), (aux_sym_in_out_decls_token1, 318),
     (aux_sym_var_decls_token1, 320), (aux_sym_temp_var_decls_token1, 322),
     (aux_sym_external_var_decls_token1, 324), (aux_sym_global_var_decls_token1, 326),
     (aux_sym_fb_decl_token4, 950), (aux_sym_method_decl_token1, 330),
     (aux_sym_prog_access_decls_token1, 332), (aux_sym_initial_step_token1, 334),
     (aux_sym_config_init_token1, 336), (aux_sym__stmt_token1, 340), (aux_sym__stmt_token2, 340),
     (aux_sym__stmt_token3, 340), (aux_sym_if_stmt_token1, 342), (aux_sym_case_stmt_token1, 344),
     (aux_sym_for_stmt_token1, 346), (aux_sym_while_stmt_token1, 348),
     (aux_sym_repeat_stmt_token1, 350), (aux_sym_raise_stmt_token1, 352),
     (aux_sym_try_stmt_token1, 354), (aux_sym_try_stmt_token2, 356),
     (aux_sym_catch_clause_token1, 356), (aux_sym_finally_clause_token1, 356), (sym_ld_rung, 358),
     (sym_fbd_network, 360), (sym_c_style_comment, 3), (sym_pascal_style_comment, 3),
     (sym_pragma, 3)]"

lemma ts_parse_row_310_scan: "row_scan tokens_63_2 0 ts_parse_row_310 = Some (Suc (Suc (Suc (Suc 0))))"
  unfolding ts_parse_row_310_def by simp

text \<open>Lines 90352 to 90464.\<close>

definition ts_parse_row_311 :: parse_row where
  "ts_parse_row_311 =
    [(sym_ERR_assign_func_call, 7530), (sym_ERR_unexpected_this_in_path, 2372),
     (sym_ERR_unexpected_super_in_path, 2372), (sym_ERR_fb_variables_after_method, 1892),
     (sym_ERR_var_access_not_allowed, 3160), (sym_ERR_var_config_not_allowed, 3160),
     (sym_ERR_var_global_not_allowed, 3160), (sym_ERR_method_decl_in_body, 3150),
     (sym_extern_pragma, 7490), (sym_wasm_pragma, 3150), (sym_warn_pragma, 7490),
     (sym_allow_pragma, 3140), (sym_test_pragma, 7490), (sym_once_pragma, 7490),
     (sym_must_call_pragma, 7490), (sym_export_pragma, 7490), (sym_pou_pragma, 7194),
     (sym_direct_variable, 7675), (sym_deref_expression, 2373), (sym_variable, 7599),
     (sym_var_access, 2373), (sym_in_out_decls, 3160), (sym_var_decls, 3160),
     (sym_retain_var_decls, 3160), (sym_temp_var_decls, 3160), (sym_external_var_decls, 3160),
     (sym_global_var_decls, 2947), (sym_loc_partly_var_decl, 3160), (sym__fb_variables, 2343),
     (sym_fb_input_decls, 3160), (sym_fb_output_decls, 3160), (sym_no_retain_var_decls, 3160),
     (sym_fb_body, 8493), (sym_method_decl, 2549), (sym_prog_access_decls, 3043), (sym_SFC, 7970),
     (sym_SFC_network, 7612), (sym_initial_step, 7439), (sym_config_init, 3047),
     (sym_variable_access, 7530), (sym_func_call, 2961), (sym_stmt_list, 7970), (sym__stmt, 2024),
     (sym_assign, 3150), (sym_if_stmt, 3150), (sym_case_stmt, 3150), (sym_for_stmt, 3150),
     (sym_while_stmt, 3150), (sym_repeat_stmt, 3150), (sym_raise_stmt, 3150), (sym_try_stmt, 3150),
     (sym_ERR_clause_outside_try, 3150), (sym_begin_path_expression, 2943), (sym_invocation, 2934),
     (sym_any_invocation, 2935), (sym_this_invocation, 2641), (sym_super_invocation, 2641),
     (sym_super_body_invocation, 2935), (sym_path_expression, 2627), (sym_field_expression, 2373),
     (sym_index_expression, 2373), (sym_ladder_diagram, 7970), (sym_fb_diagram, 7970),
     (aux_sym_ERR_fb_variables_after_method_repeat1, 2343), (aux_sym_func_decl_repeat1, 7194),
     (aux_sym_fb_decl_repeat3, 2549), (aux_sym_SFC_repeat1, 7612),
     (aux_sym_stmt_list_repeat1, 2024), (aux_sym_ladder_diagram_repeat1, 8009),
     (aux_sym_fb_diagram_repeat1, 8013), (sym_identifier, 298),
     (aux_sym_ERR_unexpected_this_in_path_token1, 304),
     (aux_sym_ERR_unexpected_super_in_path_token1, 306), (sym_line_comment, 3),
     (anon_sym_LBRACE, 308), (aux_sym_test_pragma_token1, 9), (aux_sym_once_pragma_token1, 11),
     (aux_sym_must_call_pragma_token1, 13), (aux_sym_export_pragma_token1, 15),
     (anon_sym_SEMI, 310), (anon_sym_PERCENT, 312), (aux_sym_input_decls_token1, 314),
     (aux_sym_output_decls_token1, 316), (aux_sym_in_out_decls_token1, 318),
     (aux_sym_var_decls_token1, 320), (aux_sym_temp_var_decls_token1, 322),
     (aux_sym_external_var_decls_token1, 324), (aux_sym_global_var_decls_token1, 326),
     (aux_sym_fb_decl_token4, 952), (aux_sym_method_decl_token1, 330),
     (aux_sym_prog_access_decls_token1, 332), (aux_sym_initial_step_token1, 334),
     (aux_sym_config_init_token1, 336), (aux_sym__stmt_token1, 340), (aux_sym__stmt_token2, 340),
     (aux_sym__stmt_token3, 340), (aux_sym_if_stmt_token1, 342), (aux_sym_case_stmt_token1, 344),
     (aux_sym_for_stmt_token1, 346), (aux_sym_while_stmt_token1, 348),
     (aux_sym_repeat_stmt_token1, 350), (aux_sym_raise_stmt_token1, 352),
     (aux_sym_try_stmt_token1, 354), (aux_sym_try_stmt_token2, 356),
     (aux_sym_catch_clause_token1, 356), (aux_sym_finally_clause_token1, 356), (sym_ld_rung, 358),
     (sym_fbd_network, 360), (sym_c_style_comment, 3), (sym_pascal_style_comment, 3),
     (sym_pragma, 3)]"

lemma ts_parse_row_311_scan: "row_scan tokens_63_2 0 ts_parse_row_311 = Some (Suc (Suc (Suc (Suc 0))))"
  unfolding ts_parse_row_311_def by simp

text \<open>Lines 90465 to 90577.\<close>

definition ts_parse_row_312 :: parse_row where
  "ts_parse_row_312 =
    [(sym_ERR_assign_func_call, 7530), (sym_ERR_unexpected_this_in_path, 2372),
     (sym_ERR_unexpected_super_in_path, 2372), (sym_ERR_fb_variables_after_method, 1338),
     (sym_ERR_var_access_not_allowed, 3160), (sym_ERR_var_config_not_allowed, 3160),
     (sym_ERR_var_global_not_allowed, 3160), (sym_ERR_method_decl_in_body, 3150),
     (sym_extern_pragma, 7490), (sym_wasm_pragma, 3150), (sym_warn_pragma, 7490),
     (sym_allow_pragma, 3140), (sym_test_pragma, 7490), (sym_once_pragma, 7490),
     (sym_must_call_pragma, 7490), (sym_export_pragma, 7490), (sym_pou_pragma, 7194),
     (sym_direct_variable, 7675), (sym_deref_expression, 2373), (sym_variable, 7599),
     (sym_var_access, 2373), (sym_in_out_decls, 3160), (sym_var_decls, 3160),
     (sym_retain_var_decls, 3160), (sym_temp_var_decls, 3160), (sym_external_var_decls, 3160),
     (sym_global_var_decls, 2947), (sym_loc_partly_var_decl, 3160), (sym__fb_variables, 2343),
     (sym_fb_input_decls, 3160), (sym_fb_output_decls, 3160), (sym_no_retain_var_decls, 3160),
     (sym_fb_body, 10489), (sym_method_decl, 2549), (sym_prog_access_decls, 3043), (sym_SFC, 7970),
     (sym_SFC_network, 7612), (sym_initial_step, 7439), (sym_config_init, 3047),
     (sym_variable_access, 7530), (sym_func_call, 2961), (sym_stmt_list, 7970), (sym__stmt, 2024),
     (sym_assign, 3150), (sym_if_stmt, 3150), (sym_case_stmt, 3150), (sym_for_stmt, 3150),
     (sym_while_stmt, 3150), (sym_repeat_stmt, 3150), (sym_raise_stmt, 3150), (sym_try_stmt, 3150),
     (sym_ERR_clause_outside_try, 3150), (sym_begin_path_expression, 2943), (sym_invocation, 2934),
     (sym_any_invocation, 2935), (sym_this_invocation, 2641), (sym_super_invocation, 2641),
     (sym_super_body_invocation, 2935), (sym_path_expression, 2627), (sym_field_expression, 2373),
     (sym_index_expression, 2373), (sym_ladder_diagram, 7970), (sym_fb_diagram, 7970),
     (aux_sym_ERR_fb_variables_after_method_repeat1, 2343), (aux_sym_func_decl_repeat1, 7194),
     (aux_sym_fb_decl_repeat3, 2549), (aux_sym_SFC_repeat1, 7612),
     (aux_sym_stmt_list_repeat1, 2024), (aux_sym_ladder_diagram_repeat1, 8009),
     (aux_sym_fb_diagram_repeat1, 8013), (sym_identifier, 298),
     (aux_sym_ERR_unexpected_this_in_path_token1, 304),
     (aux_sym_ERR_unexpected_super_in_path_token1, 306), (sym_line_comment, 3),
     (anon_sym_LBRACE, 308), (aux_sym_test_pragma_token1, 9), (aux_sym_once_pragma_token1, 11),
     (aux_sym_must_call_pragma_token1, 13), (aux_sym_export_pragma_token1, 15),
     (anon_sym_SEMI, 310), (anon_sym_PERCENT, 312), (aux_sym_input_decls_token1, 314),
     (aux_sym_output_decls_token1, 316), (aux_sym_in_out_decls_token1, 318),
     (aux_sym_var_decls_token1, 320), (aux_sym_temp_var_decls_token1, 322),
     (aux_sym_external_var_decls_token1, 324), (aux_sym_global_var_decls_token1, 326),
     (aux_sym_fb_decl_token4, 954), (aux_sym_method_decl_token1, 330),
     (aux_sym_prog_access_decls_token1, 332), (aux_sym_initial_step_token1, 334),
     (aux_sym_config_init_token1, 336), (aux_sym__stmt_token1, 340), (aux_sym__stmt_token2, 340),
     (aux_sym__stmt_token3, 340), (aux_sym_if_stmt_token1, 342), (aux_sym_case_stmt_token1, 344),
     (aux_sym_for_stmt_token1, 346), (aux_sym_while_stmt_token1, 348),
     (aux_sym_repeat_stmt_token1, 350), (aux_sym_raise_stmt_token1, 352),
     (aux_sym_try_stmt_token1, 354), (aux_sym_try_stmt_token2, 356),
     (aux_sym_catch_clause_token1, 356), (aux_sym_finally_clause_token1, 356), (sym_ld_rung, 358),
     (sym_fbd_network, 360), (sym_c_style_comment, 3), (sym_pascal_style_comment, 3),
     (sym_pragma, 3)]"

lemma ts_parse_row_312_scan: "row_scan tokens_63_2 0 ts_parse_row_312 = Some (Suc (Suc (Suc (Suc 0))))"
  unfolding ts_parse_row_312_def by simp

text \<open>Lines 90578 to 90690.\<close>

definition ts_parse_row_313 :: parse_row where
  "ts_parse_row_313 =
    [(sym_ERR_assign_func_call, 7530), (sym_ERR_unexpected_this_in_path, 2372),
     (sym_ERR_unexpected_super_in_path, 2372), (sym_ERR_fb_variables_after_method, 1935),
     (sym_ERR_var_access_not_allowed, 3160), (sym_ERR_var_config_not_allowed, 3160),
     (sym_ERR_var_global_not_allowed, 3160), (sym_ERR_method_decl_in_body, 3150),
     (sym_extern_pragma, 7490), (sym_wasm_pragma, 3150), (sym_warn_pragma, 7490),
     (sym_allow_pragma, 3140), (sym_test_pragma, 7490), (sym_once_pragma, 7490),
     (sym_must_call_pragma, 7490), (sym_export_pragma, 7490), (sym_pou_pragma, 7194),
     (sym_direct_variable, 7675), (sym_deref_expression, 2373), (sym_variable, 7599),
     (sym_var_access, 2373), (sym_in_out_decls, 3160), (sym_var_decls, 3160),
     (sym_retain_var_decls, 3160), (sym_temp_var_decls, 3160), (sym_external_var_decls, 3160),
     (sym_global_var_decls, 2947), (sym_loc_partly_var_decl, 3160), (sym__fb_variables, 2343),
     (sym_fb_input_decls, 3160), (sym_fb_output_decls, 3160), (sym_no_retain_var_decls, 3160),
     (sym_fb_body, 9518), (sym_method_decl, 2549), (sym_prog_access_decls, 3043), (sym_SFC, 7970),
     (sym_SFC_network, 7612), (sym_initial_step, 7439), (sym_config_init, 3047),
     (sym_variable_access, 7530), (sym_func_call, 2961), (sym_stmt_list, 7970), (sym__stmt, 2024),
     (sym_assign, 3150), (sym_if_stmt, 3150), (sym_case_stmt, 3150), (sym_for_stmt, 3150),
     (sym_while_stmt, 3150), (sym_repeat_stmt, 3150), (sym_raise_stmt, 3150), (sym_try_stmt, 3150),
     (sym_ERR_clause_outside_try, 3150), (sym_begin_path_expression, 2943), (sym_invocation, 2934),
     (sym_any_invocation, 2935), (sym_this_invocation, 2641), (sym_super_invocation, 2641),
     (sym_super_body_invocation, 2935), (sym_path_expression, 2627), (sym_field_expression, 2373),
     (sym_index_expression, 2373), (sym_ladder_diagram, 7970), (sym_fb_diagram, 7970),
     (aux_sym_ERR_fb_variables_after_method_repeat1, 2343), (aux_sym_func_decl_repeat1, 7194),
     (aux_sym_fb_decl_repeat3, 2549), (aux_sym_SFC_repeat1, 7612),
     (aux_sym_stmt_list_repeat1, 2024), (aux_sym_ladder_diagram_repeat1, 8009),
     (aux_sym_fb_diagram_repeat1, 8013), (sym_identifier, 298),
     (aux_sym_ERR_unexpected_this_in_path_token1, 304),
     (aux_sym_ERR_unexpected_super_in_path_token1, 306), (sym_line_comment, 3),
     (anon_sym_LBRACE, 308), (aux_sym_test_pragma_token1, 9), (aux_sym_once_pragma_token1, 11),
     (aux_sym_must_call_pragma_token1, 13), (aux_sym_export_pragma_token1, 15),
     (anon_sym_SEMI, 310), (anon_sym_PERCENT, 312), (aux_sym_input_decls_token1, 314),
     (aux_sym_output_decls_token1, 316), (aux_sym_in_out_decls_token1, 318),
     (aux_sym_var_decls_token1, 320), (aux_sym_temp_var_decls_token1, 322),
     (aux_sym_external_var_decls_token1, 324), (aux_sym_global_var_decls_token1, 326),
     (aux_sym_fb_decl_token4, 956), (aux_sym_method_decl_token1, 330),
     (aux_sym_prog_access_decls_token1, 332), (aux_sym_initial_step_token1, 334),
     (aux_sym_config_init_token1, 336), (aux_sym__stmt_token1, 340), (aux_sym__stmt_token2, 340),
     (aux_sym__stmt_token3, 340), (aux_sym_if_stmt_token1, 342), (aux_sym_case_stmt_token1, 344),
     (aux_sym_for_stmt_token1, 346), (aux_sym_while_stmt_token1, 348),
     (aux_sym_repeat_stmt_token1, 350), (aux_sym_raise_stmt_token1, 352),
     (aux_sym_try_stmt_token1, 354), (aux_sym_try_stmt_token2, 356),
     (aux_sym_catch_clause_token1, 356), (aux_sym_finally_clause_token1, 356), (sym_ld_rung, 358),
     (sym_fbd_network, 360), (sym_c_style_comment, 3), (sym_pascal_style_comment, 3),
     (sym_pragma, 3)]"

lemma ts_parse_row_313_scan: "row_scan tokens_63_2 0 ts_parse_row_313 = Some (Suc (Suc (Suc (Suc 0))))"
  unfolding ts_parse_row_313_def by simp

text \<open>Lines 90691 to 90803.\<close>

definition ts_parse_row_314 :: parse_row where
  "ts_parse_row_314 =
    [(sym_ERR_assign_func_call, 7530), (sym_ERR_unexpected_this_in_path, 2372),
     (sym_ERR_unexpected_super_in_path, 2372), (sym_ERR_fb_variables_after_method, 1936),
     (sym_ERR_var_access_not_allowed, 3160), (sym_ERR_var_config_not_allowed, 3160),
     (sym_ERR_var_global_not_allowed, 3160), (sym_ERR_method_decl_in_body, 3150),
     (sym_extern_pragma, 7490), (sym_wasm_pragma, 3150), (sym_warn_pragma, 7490),
     (sym_allow_pragma, 3140), (sym_test_pragma, 7490), (sym_once_pragma, 7490),
     (sym_must_call_pragma, 7490), (sym_export_pragma, 7490), (sym_pou_pragma, 7194),
     (sym_direct_variable, 7675), (sym_deref_expression, 2373), (sym_variable, 7599),
     (sym_var_access, 2373), (sym_in_out_decls, 3160), (sym_var_decls, 3160),
     (sym_retain_var_decls, 3160), (sym_temp_var_decls, 3160), (sym_external_var_decls, 3160),
     (sym_global_var_decls, 2947), (sym_loc_partly_var_decl, 3160), (sym__fb_variables, 2347),
     (sym_fb_input_decls, 3160), (sym_fb_output_decls, 3160), (sym_no_retain_var_decls, 3160),
     (sym_fb_body, 9597), (sym_method_decl, 462), (sym_prog_access_decls, 3043), (sym_SFC, 7970),
     (sym_SFC_network, 7612), (sym_initial_step, 7439), (sym_config_init, 3047),
     (sym_variable_access, 7530), (sym_func_call, 2961), (sym_stmt_list, 7970), (sym__stmt, 2024),
     (sym_assign, 3150), (sym_if_stmt, 3150), (sym_case_stmt, 3150), (sym_for_stmt, 3150),
     (sym_while_stmt, 3150), (sym_repeat_stmt, 3150), (sym_raise_stmt, 3150), (sym_try_stmt, 3150),
     (sym_ERR_clause_outside_try, 3150), (sym_begin_path_expression, 2943), (sym_invocation, 2934),
     (sym_any_invocation, 2935), (sym_this_invocation, 2641), (sym_super_invocation, 2641),
     (sym_super_body_invocation, 2935), (sym_path_expression, 2627), (sym_field_expression, 2373),
     (sym_index_expression, 2373), (sym_ladder_diagram, 7970), (sym_fb_diagram, 7970),
     (aux_sym_ERR_fb_variables_after_method_repeat1, 2347), (aux_sym_func_decl_repeat1, 7194),
     (aux_sym_fb_decl_repeat3, 462), (aux_sym_SFC_repeat1, 7612), (aux_sym_stmt_list_repeat1, 2024),
     (aux_sym_ladder_diagram_repeat1, 8009), (aux_sym_fb_diagram_repeat1, 8013),
     (sym_identifier, 298), (aux_sym_ERR_unexpected_this_in_path_token1, 304),
     (aux_sym_ERR_unexpected_super_in_path_token1, 306), (sym_line_comment, 3),
     (anon_sym_LBRACE, 308), (aux_sym_test_pragma_token1, 9), (aux_sym_once_pragma_token1, 11),
     (aux_sym_must_call_pragma_token1, 13), (aux_sym_export_pragma_token1, 15),
     (anon_sym_SEMI, 310), (anon_sym_PERCENT, 312), (aux_sym_input_decls_token1, 314),
     (aux_sym_output_decls_token1, 316), (aux_sym_in_out_decls_token1, 318),
     (aux_sym_var_decls_token1, 320), (aux_sym_temp_var_decls_token1, 322),
     (aux_sym_external_var_decls_token1, 324), (aux_sym_global_var_decls_token1, 326),
     (aux_sym_fb_decl_token4, 958), (aux_sym_method_decl_token1, 330),
     (aux_sym_prog_access_decls_token1, 332), (aux_sym_initial_step_token1, 334),
     (aux_sym_config_init_token1, 336), (aux_sym__stmt_token1, 340), (aux_sym__stmt_token2, 340),
     (aux_sym__stmt_token3, 340), (aux_sym_if_stmt_token1, 342), (aux_sym_case_stmt_token1, 344),
     (aux_sym_for_stmt_token1, 346), (aux_sym_while_stmt_token1, 348),
     (aux_sym_repeat_stmt_token1, 350), (aux_sym_raise_stmt_token1, 352),
     (aux_sym_try_stmt_token1, 354), (aux_sym_try_stmt_token2, 356),
     (aux_sym_catch_clause_token1, 356), (aux_sym_finally_clause_token1, 356), (sym_ld_rung, 358),
     (sym_fbd_network, 360), (sym_c_style_comment, 3), (sym_pascal_style_comment, 3),
     (sym_pragma, 3)]"

lemma ts_parse_row_314_scan: "row_scan tokens_63_2 0 ts_parse_row_314 = Some (Suc (Suc (Suc (Suc 0))))"
  unfolding ts_parse_row_314_def by simp

text \<open>Lines 90804 to 90916.\<close>

definition ts_parse_row_315 :: parse_row where
  "ts_parse_row_315 =
    [(sym_ERR_assign_func_call, 7530), (sym_ERR_unexpected_this_in_path, 2372),
     (sym_ERR_unexpected_super_in_path, 2372), (sym_ERR_fb_variables_after_method, 1893),
     (sym_ERR_var_access_not_allowed, 3160), (sym_ERR_var_config_not_allowed, 3160),
     (sym_ERR_var_global_not_allowed, 3160), (sym_ERR_method_decl_in_body, 3150),
     (sym_extern_pragma, 7490), (sym_wasm_pragma, 3150), (sym_warn_pragma, 7490),
     (sym_allow_pragma, 3140), (sym_test_pragma, 7490), (sym_once_pragma, 7490),
     (sym_must_call_pragma, 7490), (sym_export_pragma, 7490), (sym_pou_pragma, 7194),
     (sym_direct_variable, 7675), (sym_deref_expression, 2373), (sym_variable, 7599),
     (sym_var_access, 2373), (sym_in_out_decls, 3160), (sym_var_decls, 3160),
     (sym_retain_var_decls, 3160), (sym_temp_var_decls, 3160), (sym_external_var_decls, 3160),
     (sym_global_var_decls, 2947), (sym_loc_partly_var_decl, 3160), (sym__fb_variables, 2343),
     (sym_fb_input_decls, 3160), (sym_fb_output_decls, 3160), (sym_no_retain_var_decls, 3160),
     (sym_fb_body, 8513), (sym_method_decl, 2549), (sym_prog_access_decls, 3043), (sym_SFC, 7970),
     (sym_SFC_network, 7612), (sym_initial_step, 7439), (sym_config_init, 3047),
     (sym_variable_access, 7530), (sym_func_call, 2961), (sym_stmt_list, 7970), (sym__stmt, 2024),
     (sym_assign, 3150), (sym_if_stmt, 3150), (sym_case_stmt, 3150), (sym_for_stmt, 3150),
     (sym_while_stmt, 3150), (sym_repeat_stmt, 3150), (sym_raise_stmt, 3150), (sym_try_stmt, 3150),
     (sym_ERR_clause_outside_try, 3150), (sym_begin_path_expression, 2943), (sym_invocation, 2934),
     (sym_any_invocation, 2935), (sym_this_invocation, 2641), (sym_super_invocation, 2641),
     (sym_super_body_invocation, 2935), (sym_path_expression, 2627), (sym_field_expression, 2373),
     (sym_index_expression, 2373), (sym_ladder_diagram, 7970), (sym_fb_diagram, 7970),
     (aux_sym_ERR_fb_variables_after_method_repeat1, 2343), (aux_sym_func_decl_repeat1, 7194),
     (aux_sym_fb_decl_repeat3, 2549), (aux_sym_SFC_repeat1, 7612),
     (aux_sym_stmt_list_repeat1, 2024), (aux_sym_ladder_diagram_repeat1, 8009),
     (aux_sym_fb_diagram_repeat1, 8013), (sym_identifier, 298),
     (aux_sym_ERR_unexpected_this_in_path_token1, 304),
     (aux_sym_ERR_unexpected_super_in_path_token1, 306), (sym_line_comment, 3),
     (anon_sym_LBRACE, 308), (aux_sym_test_pragma_token1, 9), (aux_sym_once_pragma_token1, 11),
     (aux_sym_must_call_pragma_token1, 13), (aux_sym_export_pragma_token1, 15),
     (anon_sym_SEMI, 310), (anon_sym_PERCENT, 312), (aux_sym_input_decls_token1, 314),
     (aux_sym_output_decls_token1, 316), (aux_sym_in_out_decls_token1, 318),
     (aux_sym_var_decls_token1, 320), (aux_sym_temp_var_decls_token1, 322),
     (aux_sym_external_var_decls_token1, 324), (aux_sym_global_var_decls_token1, 326),
     (aux_sym_fb_decl_token4, 960), (aux_sym_method_decl_token1, 330),
     (aux_sym_prog_access_decls_token1, 332), (aux_sym_initial_step_token1, 334),
     (aux_sym_config_init_token1, 336), (aux_sym__stmt_token1, 340), (aux_sym__stmt_token2, 340),
     (aux_sym__stmt_token3, 340), (aux_sym_if_stmt_token1, 342), (aux_sym_case_stmt_token1, 344),
     (aux_sym_for_stmt_token1, 346), (aux_sym_while_stmt_token1, 348),
     (aux_sym_repeat_stmt_token1, 350), (aux_sym_raise_stmt_token1, 352),
     (aux_sym_try_stmt_token1, 354), (aux_sym_try_stmt_token2, 356),
     (aux_sym_catch_clause_token1, 356), (aux_sym_finally_clause_token1, 356), (sym_ld_rung, 358),
     (sym_fbd_network, 360), (sym_c_style_comment, 3), (sym_pascal_style_comment, 3),
     (sym_pragma, 3)]"

lemma ts_parse_row_315_scan: "row_scan tokens_63_2 0 ts_parse_row_315 = Some (Suc (Suc (Suc (Suc 0))))"
  unfolding ts_parse_row_315_def by simp

text \<open>Lines 90917 to 91029.\<close>

definition ts_parse_row_316 :: parse_row where
  "ts_parse_row_316 =
    [(sym_ERR_assign_func_call, 7530), (sym_ERR_unexpected_this_in_path, 2372),
     (sym_ERR_unexpected_super_in_path, 2372), (sym_ERR_fb_variables_after_method, 1894),
     (sym_ERR_var_access_not_allowed, 3160), (sym_ERR_var_config_not_allowed, 3160),
     (sym_ERR_var_global_not_allowed, 3160), (sym_ERR_method_decl_in_body, 3150),
     (sym_extern_pragma, 7490), (sym_wasm_pragma, 3150), (sym_warn_pragma, 7490),
     (sym_allow_pragma, 3140), (sym_test_pragma, 7490), (sym_once_pragma, 7490),
     (sym_must_call_pragma, 7490), (sym_export_pragma, 7490), (sym_pou_pragma, 7194),
     (sym_direct_variable, 7675), (sym_deref_expression, 2373), (sym_variable, 7599),
     (sym_var_access, 2373), (sym_in_out_decls, 3160), (sym_var_decls, 3160),
     (sym_retain_var_decls, 3160), (sym_temp_var_decls, 3160), (sym_external_var_decls, 3160),
     (sym_global_var_decls, 2947), (sym_loc_partly_var_decl, 3160), (sym__fb_variables, 2347),
     (sym_fb_input_decls, 3160), (sym_fb_output_decls, 3160), (sym_no_retain_var_decls, 3160),
     (sym_fb_body, 8534), (sym_method_decl, 414), (sym_prog_access_decls, 3043), (sym_SFC, 7970),
     (sym_SFC_network, 7612), (sym_initial_step, 7439), (sym_config_init, 3047),
     (sym_variable_access, 7530), (sym_func_call, 2961), (sym_stmt_list, 7970), (sym__stmt, 2024),
     (sym_assign, 3150), (sym_if_stmt, 3150), (sym_case_stmt, 3150), (sym_for_stmt, 3150),
     (sym_while_stmt, 3150), (sym_repeat_stmt, 3150), (sym_raise_stmt, 3150), (sym_try_stmt, 3150),
     (sym_ERR_clause_outside_try, 3150), (sym_begin_path_expression, 2943), (sym_invocation, 2934),
     (sym_any_invocation, 2935), (sym_this_invocation, 2641), (sym_super_invocation, 2641),
     (sym_super_body_invocation, 2935), (sym_path_expression, 2627), (sym_field_expression, 2373),
     (sym_index_expression, 2373), (sym_ladder_diagram, 7970), (sym_fb_diagram, 7970),
     (aux_sym_ERR_fb_variables_after_method_repeat1, 2347), (aux_sym_func_decl_repeat1, 7194),
     (aux_sym_fb_decl_repeat3, 414), (aux_sym_SFC_repeat1, 7612), (aux_sym_stmt_list_repeat1, 2024),
     (aux_sym_ladder_diagram_repeat1, 8009), (aux_sym_fb_diagram_repeat1, 8013),
     (sym_identifier, 298), (aux_sym_ERR_unexpected_this_in_path_token1, 304),
     (aux_sym_ERR_unexpected_super_in_path_token1, 306), (sym_line_comment, 3),
     (anon_sym_LBRACE, 308), (aux_sym_test_pragma_token1, 9), (aux_sym_once_pragma_token1, 11),
     (aux_sym_must_call_pragma_token1, 13), (aux_sym_export_pragma_token1, 15),
     (anon_sym_SEMI, 310), (anon_sym_PERCENT, 312), (aux_sym_input_decls_token1, 314),
     (aux_sym_output_decls_token1, 316), (aux_sym_in_out_decls_token1, 318),
     (aux_sym_var_decls_token1, 320), (aux_sym_temp_var_decls_token1, 322),
     (aux_sym_external_var_decls_token1, 324), (aux_sym_global_var_decls_token1, 326),
     (aux_sym_fb_decl_token4, 962), (aux_sym_method_decl_token1, 330),
     (aux_sym_prog_access_decls_token1, 332), (aux_sym_initial_step_token1, 334),
     (aux_sym_config_init_token1, 336), (aux_sym__stmt_token1, 340), (aux_sym__stmt_token2, 340),
     (aux_sym__stmt_token3, 340), (aux_sym_if_stmt_token1, 342), (aux_sym_case_stmt_token1, 344),
     (aux_sym_for_stmt_token1, 346), (aux_sym_while_stmt_token1, 348),
     (aux_sym_repeat_stmt_token1, 350), (aux_sym_raise_stmt_token1, 352),
     (aux_sym_try_stmt_token1, 354), (aux_sym_try_stmt_token2, 356),
     (aux_sym_catch_clause_token1, 356), (aux_sym_finally_clause_token1, 356), (sym_ld_rung, 358),
     (sym_fbd_network, 360), (sym_c_style_comment, 3), (sym_pascal_style_comment, 3),
     (sym_pragma, 3)]"

lemma ts_parse_row_316_scan: "row_scan tokens_63_2 0 ts_parse_row_316 = Some (Suc (Suc (Suc (Suc 0))))"
  unfolding ts_parse_row_316_def by simp

text \<open>Lines 91030 to 91142.\<close>

definition ts_parse_row_317 :: parse_row where
  "ts_parse_row_317 =
    [(sym_ERR_assign_func_call, 7530), (sym_ERR_unexpected_this_in_path, 2372),
     (sym_ERR_unexpected_super_in_path, 2372), (sym_ERR_fb_variables_after_method, 1897),
     (sym_ERR_var_access_not_allowed, 3160), (sym_ERR_var_config_not_allowed, 3160),
     (sym_ERR_var_global_not_allowed, 3160), (sym_ERR_method_decl_in_body, 3150),
     (sym_extern_pragma, 7490), (sym_wasm_pragma, 3150), (sym_warn_pragma, 7490),
     (sym_allow_pragma, 3140), (sym_test_pragma, 7490), (sym_once_pragma, 7490),
     (sym_must_call_pragma, 7490), (sym_export_pragma, 7490), (sym_pou_pragma, 7194),
     (sym_direct_variable, 7675), (sym_deref_expression, 2373), (sym_variable, 7599),
     (sym_var_access, 2373), (sym_in_out_decls, 3160), (sym_var_decls, 3160),
     (sym_retain_var_decls, 3160), (sym_temp_var_decls, 3160), (sym_external_var_decls, 3160),
     (sym_global_var_decls, 2947), (sym_loc_partly_var_decl, 3160), (sym__fb_variables, 2343),
     (sym_fb_input_decls, 3160), (sym_fb_output_decls, 3160), (sym_no_retain_var_decls, 3160),
     (sym_fb_body, 8547), (sym_method_decl, 2549), (sym_prog_access_decls, 3043), (sym_SFC, 7970),
     (sym_SFC_network, 7612), (sym_initial_step, 7439), (sym_config_init, 3047),
     (sym_variable_access, 7530), (sym_func_call, 2961), (sym_stmt_list, 7970), (sym__stmt, 2024),
     (sym_assign, 3150), (sym_if_stmt, 3150), (sym_case_stmt, 3150), (sym_for_stmt, 3150),
     (sym_while_stmt, 3150), (sym_repeat_stmt, 3150), (sym_raise_stmt, 3150), (sym_try_stmt, 3150),
     (sym_ERR_clause_outside_try, 3150), (sym_begin_path_expression, 2943), (sym_invocation, 2934),
     (sym_any_invocation, 2935), (sym_this_invocation, 2641), (sym_super_invocation, 2641),
     (sym_super_body_invocation, 2935), (sym_path_expression, 2627), (sym_field_expression, 2373),
     (sym_index_expression, 2373), (sym_ladder_diagram, 7970), (sym_fb_diagram, 7970),
     (aux_sym_ERR_fb_variables_after_method_repeat1, 2343), (aux_sym_func_decl_repeat1, 7194),
     (aux_sym_fb_decl_repeat3, 2549), (aux_sym_SFC_repeat1, 7612),
     (aux_sym_stmt_list_repeat1, 2024), (aux_sym_ladder_diagram_repeat1, 8009),
     (aux_sym_fb_diagram_repeat1, 8013), (sym_identifier, 298),
     (aux_sym_ERR_unexpected_this_in_path_token1, 304),
     (aux_sym_ERR_unexpected_super_in_path_token1, 306), (sym_line_comment, 3),
     (anon_sym_LBRACE, 308), (aux_sym_test_pragma_token1, 9), (aux_sym_once_pragma_token1, 11),
     (aux_sym_must_call_pragma_token1, 13), (aux_sym_export_pragma_token1, 15),
     (anon_sym_SEMI, 310), (anon_sym_PERCENT, 312), (aux_sym_input_decls_token1, 314),
     (aux_sym_output_decls_token1, 316), (aux_sym_in_out_decls_token1, 318),
     (aux_sym_var_decls_token1, 320), (aux_sym_temp_var_decls_token1, 322),
     (aux_sym_external_var_decls_token1, 324), (aux_sym_global_var_decls_token1, 326),
     (aux_sym_fb_decl_token4, 964), (aux_sym_method_decl_token1, 330),
     (aux_sym_prog_access_decls_token1, 332), (aux_sym_initial_step_token1, 334),
     (aux_sym_config_init_token1, 336), (aux_sym__stmt_token1, 340), (aux_sym__stmt_token2, 340),
     (aux_sym__stmt_token3, 340), (aux_sym_if_stmt_token1, 342), (aux_sym_case_stmt_token1, 344),
     (aux_sym_for_stmt_token1, 346), (aux_sym_while_stmt_token1, 348),
     (aux_sym_repeat_stmt_token1, 350), (aux_sym_raise_stmt_token1, 352),
     (aux_sym_try_stmt_token1, 354), (aux_sym_try_stmt_token2, 356),
     (aux_sym_catch_clause_token1, 356), (aux_sym_finally_clause_token1, 356), (sym_ld_rung, 358),
     (sym_fbd_network, 360), (sym_c_style_comment, 3), (sym_pascal_style_comment, 3),
     (sym_pragma, 3)]"

lemma ts_parse_row_317_scan: "row_scan tokens_63_2 0 ts_parse_row_317 = Some (Suc (Suc (Suc (Suc 0))))"
  unfolding ts_parse_row_317_def by simp

text \<open>Lines 91143 to 91255.\<close>

definition ts_parse_row_318 :: parse_row where
  "ts_parse_row_318 =
    [(sym_ERR_assign_func_call, 7530), (sym_ERR_unexpected_this_in_path, 2372),
     (sym_ERR_unexpected_super_in_path, 2372), (sym_ERR_fb_variables_after_method, 1939),
     (sym_ERR_var_access_not_allowed, 3160), (sym_ERR_var_config_not_allowed, 3160),
     (sym_ERR_var_global_not_allowed, 3160), (sym_ERR_method_decl_in_body, 3150),
     (sym_extern_pragma, 7490), (sym_wasm_pragma, 3150), (sym_warn_pragma, 7490),
     (sym_allow_pragma, 3140), (sym_test_pragma, 7490), (sym_once_pragma, 7490),
     (sym_must_call_pragma, 7490), (sym_export_pragma, 7490), (sym_pou_pragma, 7194),
     (sym_direct_variable, 7675), (sym_deref_expression, 2373), (sym_variable, 7599),
     (sym_var_access, 2373), (sym_in_out_decls, 3160), (sym_var_decls, 3160),
     (sym_retain_var_decls, 3160), (sym_temp_var_decls, 3160), (sym_external_var_decls, 3160),
     (sym_global_var_decls, 2947), (sym_loc_partly_var_decl, 3160), (sym__fb_variables, 2343),
     (sym_fb_input_decls, 3160), (sym_fb_output_decls, 3160), (sym_no_retain_var_decls, 3160),
     (sym_fb_body, 9656), (sym_method_decl, 2549), (sym_prog_access_decls, 3043), (sym_SFC, 7970),
     (sym_SFC_network, 7612), (sym_initial_step, 7439), (sym_config_init, 3047),
     (sym_variable_access, 7530), (sym_func_call, 2961), (sym_stmt_list, 7970), (sym__stmt, 2024),
     (sym_assign, 3150), (sym_if_stmt, 3150), (sym_case_stmt, 3150), (sym_for_stmt, 3150),
     (sym_while_stmt, 3150), (sym_repeat_stmt, 3150), (sym_raise_stmt, 3150), (sym_try_stmt, 3150),
     (sym_ERR_clause_outside_try, 3150), (sym_begin_path_expression, 2943), (sym_invocation, 2934),
     (sym_any_invocation, 2935), (sym_this_invocation, 2641), (sym_super_invocation, 2641),
     (sym_super_body_invocation, 2935), (sym_path_expression, 2627), (sym_field_expression, 2373),
     (sym_index_expression, 2373), (sym_ladder_diagram, 7970), (sym_fb_diagram, 7970),
     (aux_sym_ERR_fb_variables_after_method_repeat1, 2343), (aux_sym_func_decl_repeat1, 7194),
     (aux_sym_fb_decl_repeat3, 2549), (aux_sym_SFC_repeat1, 7612),
     (aux_sym_stmt_list_repeat1, 2024), (aux_sym_ladder_diagram_repeat1, 8009),
     (aux_sym_fb_diagram_repeat1, 8013), (sym_identifier, 298),
     (aux_sym_ERR_unexpected_this_in_path_token1, 304),
     (aux_sym_ERR_unexpected_super_in_path_token1, 306), (sym_line_comment, 3),
     (anon_sym_LBRACE, 308), (aux_sym_test_pragma_token1, 9), (aux_sym_once_pragma_token1, 11),
     (aux_sym_must_call_pragma_token1, 13), (aux_sym_export_pragma_token1, 15),
     (anon_sym_SEMI, 310), (anon_sym_PERCENT, 312), (aux_sym_input_decls_token1, 314),
     (aux_sym_output_decls_token1, 316), (aux_sym_in_out_decls_token1, 318),
     (aux_sym_var_decls_token1, 320), (aux_sym_temp_var_decls_token1, 322),
     (aux_sym_external_var_decls_token1, 324), (aux_sym_global_var_decls_token1, 326),
     (aux_sym_fb_decl_token4, 966), (aux_sym_method_decl_token1, 330),
     (aux_sym_prog_access_decls_token1, 332), (aux_sym_initial_step_token1, 334),
     (aux_sym_config_init_token1, 336), (aux_sym__stmt_token1, 340), (aux_sym__stmt_token2, 340),
     (aux_sym__stmt_token3, 340), (aux_sym_if_stmt_token1, 342), (aux_sym_case_stmt_token1, 344),
     (aux_sym_for_stmt_token1, 346), (aux_sym_while_stmt_token1, 348),
     (aux_sym_repeat_stmt_token1, 350), (aux_sym_raise_stmt_token1, 352),
     (aux_sym_try_stmt_token1, 354), (aux_sym_try_stmt_token2, 356),
     (aux_sym_catch_clause_token1, 356), (aux_sym_finally_clause_token1, 356), (sym_ld_rung, 358),
     (sym_fbd_network, 360), (sym_c_style_comment, 3), (sym_pascal_style_comment, 3),
     (sym_pragma, 3)]"

lemma ts_parse_row_318_scan: "row_scan tokens_63_2 0 ts_parse_row_318 = Some (Suc (Suc (Suc (Suc 0))))"
  unfolding ts_parse_row_318_def by simp

text \<open>Lines 91256 to 91368.\<close>

definition ts_parse_row_319 :: parse_row where
  "ts_parse_row_319 =
    [(sym_ERR_assign_func_call, 7530), (sym_ERR_unexpected_this_in_path, 2372),
     (sym_ERR_unexpected_super_in_path, 2372), (sym_ERR_fb_variables_after_method, 1940),
     (sym_ERR_var_access_not_allowed, 3160), (sym_ERR_var_config_not_allowed, 3160),
     (sym_ERR_var_global_not_allowed, 3160), (sym_ERR_method_decl_in_body, 3150),
     (sym_extern_pragma, 7490), (sym_wasm_pragma, 3150), (sym_warn_pragma, 7490),
     (sym_allow_pragma, 3140), (sym_test_pragma, 7490), (sym_once_pragma, 7490),
     (sym_must_call_pragma, 7490), (sym_export_pragma, 7490), (sym_pou_pragma, 7194),
     (sym_direct_variable, 7675), (sym_deref_expression, 2373), (sym_variable, 7599),
     (sym_var_access, 2373), (sym_in_out_decls, 3160), (sym_var_decls, 3160),
     (sym_retain_var_decls, 3160), (sym_temp_var_decls, 3160), (sym_external_var_decls, 3160),
     (sym_global_var_decls, 2947), (sym_loc_partly_var_decl, 3160), (sym__fb_variables, 2343),
     (sym_fb_input_decls, 3160), (sym_fb_output_decls, 3160), (sym_no_retain_var_decls, 3160),
     (sym_fb_body, 9729), (sym_method_decl, 2549), (sym_prog_access_decls, 3043), (sym_SFC, 7970),
     (sym_SFC_network, 7612), (sym_initial_step, 7439), (sym_config_init, 3047),
     (sym_variable_access, 7530), (sym_func_call, 2961), (sym_stmt_list, 7970), (sym__stmt, 2024),
     (sym_assign, 3150), (sym_if_stmt, 3150), (sym_case_stmt, 3150), (sym_for_stmt, 3150),
     (sym_while_stmt, 3150), (sym_repeat_stmt, 3150), (sym_raise_stmt, 3150), (sym_try_stmt, 3150),
     (sym_ERR_clause_outside_try, 3150), (sym_begin_path_expression, 2943), (sym_invocation, 2934),
     (sym_any_invocation, 2935), (sym_this_invocation, 2641), (sym_super_invocation, 2641),
     (sym_super_body_invocation, 2935), (sym_path_expression, 2627), (sym_field_expression, 2373),
     (sym_index_expression, 2373), (sym_ladder_diagram, 7970), (sym_fb_diagram, 7970),
     (aux_sym_ERR_fb_variables_after_method_repeat1, 2343), (aux_sym_func_decl_repeat1, 7194),
     (aux_sym_fb_decl_repeat3, 2549), (aux_sym_SFC_repeat1, 7612),
     (aux_sym_stmt_list_repeat1, 2024), (aux_sym_ladder_diagram_repeat1, 8009),
     (aux_sym_fb_diagram_repeat1, 8013), (sym_identifier, 298),
     (aux_sym_ERR_unexpected_this_in_path_token1, 304),
     (aux_sym_ERR_unexpected_super_in_path_token1, 306), (sym_line_comment, 3),
     (anon_sym_LBRACE, 308), (aux_sym_test_pragma_token1, 9), (aux_sym_once_pragma_token1, 11),
     (aux_sym_must_call_pragma_token1, 13), (aux_sym_export_pragma_token1, 15),
     (anon_sym_SEMI, 310), (anon_sym_PERCENT, 312), (aux_sym_input_decls_token1, 314),
     (aux_sym_output_decls_token1, 316), (aux_sym_in_out_decls_token1, 318),
     (aux_sym_var_decls_token1, 320), (aux_sym_temp_var_decls_token1, 322),
     (aux_sym_external_var_decls_token1, 324), (aux_sym_global_var_decls_token1, 326),
     (aux_sym_fb_decl_token4, 968), (aux_sym_method_decl_token1, 330),
     (aux_sym_prog_access_decls_token1, 332), (aux_sym_initial_step_token1, 334),
     (aux_sym_config_init_token1, 336), (aux_sym__stmt_token1, 340), (aux_sym__stmt_token2, 340),
     (aux_sym__stmt_token3, 340), (aux_sym_if_stmt_token1, 342), (aux_sym_case_stmt_token1, 344),
     (aux_sym_for_stmt_token1, 346), (aux_sym_while_stmt_token1, 348),
     (aux_sym_repeat_stmt_token1, 350), (aux_sym_raise_stmt_token1, 352),
     (aux_sym_try_stmt_token1, 354), (aux_sym_try_stmt_token2, 356),
     (aux_sym_catch_clause_token1, 356), (aux_sym_finally_clause_token1, 356), (sym_ld_rung, 358),
     (sym_fbd_network, 360), (sym_c_style_comment, 3), (sym_pascal_style_comment, 3),
     (sym_pragma, 3)]"

lemma ts_parse_row_319_scan: "row_scan tokens_63_2 0 ts_parse_row_319 = Some (Suc (Suc (Suc (Suc 0))))"
  unfolding ts_parse_row_319_def by simp

text \<open>Lines 91369 to 91481.\<close>

definition ts_parse_row_320 :: parse_row where
  "ts_parse_row_320 =
    [(sym_ERR_assign_func_call, 7530), (sym_ERR_unexpected_this_in_path, 2372),
     (sym_ERR_unexpected_super_in_path, 2372), (sym_ERR_fb_variables_after_method, 1376),
     (sym_ERR_var_access_not_allowed, 3160), (sym_ERR_var_config_not_allowed, 3160),
     (sym_ERR_var_global_not_allowed, 3160), (sym_ERR_method_decl_in_body, 3150),
     (sym_extern_pragma, 7490), (sym_wasm_pragma, 3150), (sym_warn_pragma, 7490),
     (sym_allow_pragma, 3140), (sym_test_pragma, 7490), (sym_once_pragma, 7490),
     (sym_must_call_pragma, 7490), (sym_export_pragma, 7490), (sym_pou_pragma, 7194),
     (sym_direct_variable, 7675), (sym_deref_expression, 2373), (sym_variable, 7599),
     (sym_var_access, 2373), (sym_in_out_decls, 3160), (sym_var_decls, 3160),
     (sym_retain_var_decls, 3160), (sym_temp_var_decls, 3160), (sym_external_var_decls, 3160),
     (sym_global_var_decls, 2947), (sym_loc_partly_var_decl, 3160), (sym__fb_variables, 2347),
     (sym_fb_input_decls, 3160), (sym_fb_output_decls, 3160), (sym_no_retain_var_decls, 3160),
     (sym_fb_body, 9806), (sym_method_decl, 863), (sym_prog_access_decls, 3043), (sym_SFC, 7970),
     (sym_SFC_network, 7612), (sym_initial_step, 7439), (sym_config_init, 3047),
     (sym_variable_access, 7530), (sym_func_call, 2961), (sym_stmt_list, 7970), (sym__stmt, 2024),
     (sym_assign, 3150), (sym_if_stmt, 3150), (sym_case_stmt, 3150), (sym_for_stmt, 3150),
     (sym_while_stmt, 3150), (sym_repeat_stmt, 3150), (sym_raise_stmt, 3150), (sym_try_stmt, 3150),
     (sym_ERR_clause_outside_try, 3150), (sym_begin_path_expression, 2943), (sym_invocation, 2934),
     (sym_any_invocation, 2935), (sym_this_invocation, 2641), (sym_super_invocation, 2641),
     (sym_super_body_invocation, 2935), (sym_path_expression, 2627), (sym_field_expression, 2373),
     (sym_index_expression, 2373), (sym_ladder_diagram, 7970), (sym_fb_diagram, 7970),
     (aux_sym_ERR_fb_variables_after_method_repeat1, 2347), (aux_sym_func_decl_repeat1, 7194),
     (aux_sym_fb_decl_repeat3, 863), (aux_sym_SFC_repeat1, 7612), (aux_sym_stmt_list_repeat1, 2024),
     (aux_sym_ladder_diagram_repeat1, 8009), (aux_sym_fb_diagram_repeat1, 8013),
     (sym_identifier, 298), (aux_sym_ERR_unexpected_this_in_path_token1, 304),
     (aux_sym_ERR_unexpected_super_in_path_token1, 306), (sym_line_comment, 3),
     (anon_sym_LBRACE, 308), (aux_sym_test_pragma_token1, 9), (aux_sym_once_pragma_token1, 11),
     (aux_sym_must_call_pragma_token1, 13), (aux_sym_export_pragma_token1, 15),
     (anon_sym_SEMI, 310), (anon_sym_PERCENT, 312), (aux_sym_input_decls_token1, 314),
     (aux_sym_output_decls_token1, 316), (aux_sym_in_out_decls_token1, 318),
     (aux_sym_var_decls_token1, 320), (aux_sym_temp_var_decls_token1, 322),
     (aux_sym_external_var_decls_token1, 324), (aux_sym_global_var_decls_token1, 326),
     (aux_sym_fb_decl_token4, 970), (aux_sym_method_decl_token1, 330),
     (aux_sym_prog_access_decls_token1, 332), (aux_sym_initial_step_token1, 334),
     (aux_sym_config_init_token1, 336), (aux_sym__stmt_token1, 340), (aux_sym__stmt_token2, 340),
     (aux_sym__stmt_token3, 340), (aux_sym_if_stmt_token1, 342), (aux_sym_case_stmt_token1, 344),
     (aux_sym_for_stmt_token1, 346), (aux_sym_while_stmt_token1, 348),
     (aux_sym_repeat_stmt_token1, 350), (aux_sym_raise_stmt_token1, 352),
     (aux_sym_try_stmt_token1, 354), (aux_sym_try_stmt_token2, 356),
     (aux_sym_catch_clause_token1, 356), (aux_sym_finally_clause_token1, 356), (sym_ld_rung, 358),
     (sym_fbd_network, 360), (sym_c_style_comment, 3), (sym_pascal_style_comment, 3),
     (sym_pragma, 3)]"

lemma ts_parse_row_320_scan: "row_scan tokens_63_2 0 ts_parse_row_320 = Some (Suc (Suc (Suc (Suc 0))))"
  unfolding ts_parse_row_320_def by simp

text \<open>Lines 91482 to 91594.\<close>

definition ts_parse_row_321 :: parse_row where
  "ts_parse_row_321 =
    [(sym_ERR_assign_func_call, 7530), (sym_ERR_unexpected_this_in_path, 2372),
     (sym_ERR_unexpected_super_in_path, 2372), (sym_ERR_fb_variables_after_method, 1942),
     (sym_ERR_var_access_not_allowed, 3160), (sym_ERR_var_config_not_allowed, 3160),
     (sym_ERR_var_global_not_allowed, 3160), (sym_ERR_method_decl_in_body, 3150),
     (sym_extern_pragma, 7490), (sym_wasm_pragma, 3150), (sym_warn_pragma, 7490),
     (sym_allow_pragma, 3140), (sym_test_pragma, 7490), (sym_once_pragma, 7490),
     (sym_must_call_pragma, 7490), (sym_export_pragma, 7490), (sym_pou_pragma, 7194),
     (sym_direct_variable, 7675), (sym_deref_expression, 2373), (sym_variable, 7599),
     (sym_var_access, 2373), (sym_in_out_decls, 3160), (sym_var_decls, 3160),
     (sym_retain_var_decls, 3160), (sym_temp_var_decls, 3160), (sym_external_var_decls, 3160),
     (sym_global_var_decls, 2947), (sym_loc_partly_var_decl, 3160), (sym__fb_variables, 2343),
     (sym_fb_input_decls, 3160), (sym_fb_output_decls, 3160), (sym_no_retain_var_decls, 3160),
     (sym_fb_body, 9812), (sym_method_decl, 2549), (sym_prog_access_decls, 3043), (sym_SFC, 7970),
     (sym_SFC_network, 7612), (sym_initial_step, 7439), (sym_config_init, 3047),
     (sym_variable_access, 7530), (sym_func_call, 2961), (sym_stmt_list, 7970), (sym__stmt, 2024),
     (sym_assign, 3150), (sym_if_stmt, 3150), (sym_case_stmt, 3150), (sym_for_stmt, 3150),
     (sym_while_stmt, 3150), (sym_repeat_stmt, 3150), (sym_raise_stmt, 3150), (sym_try_stmt, 3150),
     (sym_ERR_clause_outside_try, 3150), (sym_begin_path_expression, 2943), (sym_invocation, 2934),
     (sym_any_invocation, 2935), (sym_this_invocation, 2641), (sym_super_invocation, 2641),
     (sym_super_body_invocation, 2935), (sym_path_expression, 2627), (sym_field_expression, 2373),
     (sym_index_expression, 2373), (sym_ladder_diagram, 7970), (sym_fb_diagram, 7970),
     (aux_sym_ERR_fb_variables_after_method_repeat1, 2343), (aux_sym_func_decl_repeat1, 7194),
     (aux_sym_fb_decl_repeat3, 2549), (aux_sym_SFC_repeat1, 7612),
     (aux_sym_stmt_list_repeat1, 2024), (aux_sym_ladder_diagram_repeat1, 8009),
     (aux_sym_fb_diagram_repeat1, 8013), (sym_identifier, 298),
     (aux_sym_ERR_unexpected_this_in_path_token1, 304),
     (aux_sym_ERR_unexpected_super_in_path_token1, 306), (sym_line_comment, 3),
     (anon_sym_LBRACE, 308), (aux_sym_test_pragma_token1, 9), (aux_sym_once_pragma_token1, 11),
     (aux_sym_must_call_pragma_token1, 13), (aux_sym_export_pragma_token1, 15),
     (anon_sym_SEMI, 310), (anon_sym_PERCENT, 312), (aux_sym_input_decls_token1, 314),
     (aux_sym_output_decls_token1, 316), (aux_sym_in_out_decls_token1, 318),
     (aux_sym_var_decls_token1, 320), (aux_sym_temp_var_decls_token1, 322),
     (aux_sym_external_var_decls_token1, 324), (aux_sym_global_var_decls_token1, 326),
     (aux_sym_fb_decl_token4, 972), (aux_sym_method_decl_token1, 330),
     (aux_sym_prog_access_decls_token1, 332), (aux_sym_initial_step_token1, 334),
     (aux_sym_config_init_token1, 336), (aux_sym__stmt_token1, 340), (aux_sym__stmt_token2, 340),
     (aux_sym__stmt_token3, 340), (aux_sym_if_stmt_token1, 342), (aux_sym_case_stmt_token1, 344),
     (aux_sym_for_stmt_token1, 346), (aux_sym_while_stmt_token1, 348),
     (aux_sym_repeat_stmt_token1, 350), (aux_sym_raise_stmt_token1, 352),
     (aux_sym_try_stmt_token1, 354), (aux_sym_try_stmt_token2, 356),
     (aux_sym_catch_clause_token1, 356), (aux_sym_finally_clause_token1, 356), (sym_ld_rung, 358),
     (sym_fbd_network, 360), (sym_c_style_comment, 3), (sym_pascal_style_comment, 3),
     (sym_pragma, 3)]"

lemma ts_parse_row_321_scan: "row_scan tokens_63_2 0 ts_parse_row_321 = Some (Suc (Suc (Suc (Suc 0))))"
  unfolding ts_parse_row_321_def by simp

text \<open>Lines 91595 to 91707.\<close>

definition ts_parse_row_322 :: parse_row where
  "ts_parse_row_322 =
    [(sym_ERR_assign_func_call, 7530), (sym_ERR_unexpected_this_in_path, 2372),
     (sym_ERR_unexpected_super_in_path, 2372), (sym_ERR_fb_variables_after_method, 1943),
     (sym_ERR_var_access_not_allowed, 3160), (sym_ERR_var_config_not_allowed, 3160),
     (sym_ERR_var_global_not_allowed, 3160), (sym_ERR_method_decl_in_body, 3150),
     (sym_extern_pragma, 7490), (sym_wasm_pragma, 3150), (sym_warn_pragma, 7490),
     (sym_allow_pragma, 3140), (sym_test_pragma, 7490), (sym_once_pragma, 7490),
     (sym_must_call_pragma, 7490), (sym_export_pragma, 7490), (sym_pou_pragma, 7194),
     (sym_direct_variable, 7675), (sym_deref_expression, 2373), (sym_variable, 7599),
     (sym_var_access, 2373), (sym_in_out_decls, 3160), (sym_var_decls, 3160),
     (sym_retain_var_decls, 3160), (sym_temp_var_decls, 3160), (sym_external_var_decls, 3160),
     (sym_global_var_decls, 2947), (sym_loc_partly_var_decl, 3160), (sym__fb_variables, 2347),
     (sym_fb_input_decls, 3160), (sym_fb_output_decls, 3160), (sym_no_retain_var_decls, 3160),
     (sym_fb_body, 9839), (sym_method_decl, 473), (sym_prog_access_decls, 3043), (sym_SFC, 7970),
     (sym_SFC_network, 7612), (sym_initial_step, 7439), (sym_config_init, 3047),
     (sym_variable_access, 7530), (sym_func_call, 2961), (sym_stmt_list, 7970), (sym__stmt, 2024),
     (sym_assign, 3150), (sym_if_stmt, 3150), (sym_case_stmt, 3150), (sym_for_stmt, 3150),
     (sym_while_stmt, 3150), (sym_repeat_stmt, 3150), (sym_raise_stmt, 3150), (sym_try_stmt, 3150),
     (sym_ERR_clause_outside_try, 3150), (sym_begin_path_expression, 2943), (sym_invocation, 2934),
     (sym_any_invocation, 2935), (sym_this_invocation, 2641), (sym_super_invocation, 2641),
     (sym_super_body_invocation, 2935), (sym_path_expression, 2627), (sym_field_expression, 2373),
     (sym_index_expression, 2373), (sym_ladder_diagram, 7970), (sym_fb_diagram, 7970),
     (aux_sym_ERR_fb_variables_after_method_repeat1, 2347), (aux_sym_func_decl_repeat1, 7194),
     (aux_sym_fb_decl_repeat3, 473), (aux_sym_SFC_repeat1, 7612), (aux_sym_stmt_list_repeat1, 2024),
     (aux_sym_ladder_diagram_repeat1, 8009), (aux_sym_fb_diagram_repeat1, 8013),
     (sym_identifier, 298), (aux_sym_ERR_unexpected_this_in_path_token1, 304),
     (aux_sym_ERR_unexpected_super_in_path_token1, 306), (sym_line_comment, 3),
     (anon_sym_LBRACE, 308), (aux_sym_test_pragma_token1, 9), (aux_sym_once_pragma_token1, 11),
     (aux_sym_must_call_pragma_token1, 13), (aux_sym_export_pragma_token1, 15),
     (anon_sym_SEMI, 310), (anon_sym_PERCENT, 312), (aux_sym_input_decls_token1, 314),
     (aux_sym_output_decls_token1, 316), (aux_sym_in_out_decls_token1, 318),
     (aux_sym_var_decls_token1, 320), (aux_sym_temp_var_decls_token1, 322),
     (aux_sym_external_var_decls_token1, 324), (aux_sym_global_var_decls_token1, 326),
     (aux_sym_fb_decl_token4, 974), (aux_sym_method_decl_token1, 330),
     (aux_sym_prog_access_decls_token1, 332), (aux_sym_initial_step_token1, 334),
     (aux_sym_config_init_token1, 336), (aux_sym__stmt_token1, 340), (aux_sym__stmt_token2, 340),
     (aux_sym__stmt_token3, 340), (aux_sym_if_stmt_token1, 342), (aux_sym_case_stmt_token1, 344),
     (aux_sym_for_stmt_token1, 346), (aux_sym_while_stmt_token1, 348),
     (aux_sym_repeat_stmt_token1, 350), (aux_sym_raise_stmt_token1, 352),
     (aux_sym_try_stmt_token1, 354), (aux_sym_try_stmt_token2, 356),
     (aux_sym_catch_clause_token1, 356), (aux_sym_finally_clause_token1, 356), (sym_ld_rung, 358),
     (sym_fbd_network, 360), (sym_c_style_comment, 3), (sym_pascal_style_comment, 3),
     (sym_pragma, 3)]"

lemma ts_parse_row_322_scan: "row_scan tokens_63_2 0 ts_parse_row_322 = Some (Suc (Suc (Suc (Suc 0))))"
  unfolding ts_parse_row_322_def by simp

text \<open>Lines 91708 to 91820.\<close>

definition ts_parse_row_323 :: parse_row where
  "ts_parse_row_323 =
    [(sym_ERR_assign_func_call, 7530), (sym_ERR_unexpected_this_in_path, 2372),
     (sym_ERR_unexpected_super_in_path, 2372), (sym_ERR_fb_variables_after_method, 1944),
     (sym_ERR_var_access_not_allowed, 3160), (sym_ERR_var_config_not_allowed, 3160),
     (sym_ERR_var_global_not_allowed, 3160), (sym_ERR_method_decl_in_body, 3150),
     (sym_extern_pragma, 7490), (sym_wasm_pragma, 3150), (sym_warn_pragma, 7490),
     (sym_allow_pragma, 3140), (sym_test_pragma, 7490), (sym_once_pragma, 7490),
     (sym_must_call_pragma, 7490), (sym_export_pragma, 7490), (sym_pou_pragma, 7194),
     (sym_direct_variable, 7675), (sym_deref_expression, 2373), (sym_variable, 7599),
     (sym_var_access, 2373), (sym_in_out_decls, 3160), (sym_var_decls, 3160),
     (sym_retain_var_decls, 3160), (sym_temp_var_decls, 3160), (sym_external_var_decls, 3160),
     (sym_global_var_decls, 2947), (sym_loc_partly_var_decl, 3160), (sym__fb_variables, 2343),
     (sym_fb_input_decls, 3160), (sym_fb_output_decls, 3160), (sym_no_retain_var_decls, 3160),
     (sym_fb_body, 9847), (sym_method_decl, 2549), (sym_prog_access_decls, 3043), (sym_SFC, 7970),
     (sym_SFC_network, 7612), (sym_initial_step, 7439), (sym_config_init, 3047),
     (sym_variable_access, 7530), (sym_func_call, 2961), (sym_stmt_list, 7970), (sym__stmt, 2024),
     (sym_assign, 3150), (sym_if_stmt, 3150), (sym_case_stmt, 3150), (sym_for_stmt, 3150),
     (sym_while_stmt, 3150), (sym_repeat_stmt, 3150), (sym_raise_stmt, 3150), (sym_try_stmt, 3150),
     (sym_ERR_clause_outside_try, 3150), (sym_begin_path_expression, 2943), (sym_invocation, 2934),
     (sym_any_invocation, 2935), (sym_this_invocation, 2641), (sym_super_invocation, 2641),
     (sym_super_body_invocation, 2935), (sym_path_expression, 2627), (sym_field_expression, 2373),
     (sym_index_expression, 2373), (sym_ladder_diagram, 7970), (sym_fb_diagram, 7970),
     (aux_sym_ERR_fb_variables_after_method_repeat1, 2343), (aux_sym_func_decl_repeat1, 7194),
     (aux_sym_fb_decl_repeat3, 2549), (aux_sym_SFC_repeat1, 7612),
     (aux_sym_stmt_list_repeat1, 2024), (aux_sym_ladder_diagram_repeat1, 8009),
     (aux_sym_fb_diagram_repeat1, 8013), (sym_identifier, 298),
     (aux_sym_ERR_unexpected_this_in_path_token1, 304),
     (aux_sym_ERR_unexpected_super_in_path_token1, 306), (sym_line_comment, 3),
     (anon_sym_LBRACE, 308), (aux_sym_test_pragma_token1, 9), (aux_sym_once_pragma_token1, 11),
     (aux_sym_must_call_pragma_token1, 13), (aux_sym_export_pragma_token1, 15),
     (anon_sym_SEMI, 310), (anon_sym_PERCENT, 312), (aux_sym_input_decls_token1, 314),
     (aux_sym_output_decls_token1, 316), (aux_sym_in_out_decls_token1, 318),
     (aux_sym_var_decls_token1, 320), (aux_sym_temp_var_decls_token1, 322),
     (aux_sym_external_var_decls_token1, 324), (aux_sym_global_var_decls_token1, 326),
     (aux_sym_fb_decl_token4, 976), (aux_sym_method_decl_token1, 330),
     (aux_sym_prog_access_decls_token1, 332), (aux_sym_initial_step_token1, 334),
     (aux_sym_config_init_token1, 336), (aux_sym__stmt_token1, 340), (aux_sym__stmt_token2, 340),
     (aux_sym__stmt_token3, 340), (aux_sym_if_stmt_token1, 342), (aux_sym_case_stmt_token1, 344),
     (aux_sym_for_stmt_token1, 346), (aux_sym_while_stmt_token1, 348),
     (aux_sym_repeat_stmt_token1, 350), (aux_sym_raise_stmt_token1, 352),
     (aux_sym_try_stmt_token1, 354), (aux_sym_try_stmt_token2, 356),
     (aux_sym_catch_clause_token1, 356), (aux_sym_finally_clause_token1, 356), (sym_ld_rung, 358),
     (sym_fbd_network, 360), (sym_c_style_comment, 3), (sym_pascal_style_comment, 3),
     (sym_pragma, 3)]"

lemma ts_parse_row_323_scan: "row_scan tokens_63_2 0 ts_parse_row_323 = Some (Suc (Suc (Suc (Suc 0))))"
  unfolding ts_parse_row_323_def by simp

text \<open>Lines 91821 to 91933.\<close>

definition ts_parse_row_324 :: parse_row where
  "ts_parse_row_324 =
    [(sym_ERR_assign_func_call, 7530), (sym_ERR_unexpected_this_in_path, 2372),
     (sym_ERR_unexpected_super_in_path, 2372), (sym_ERR_fb_variables_after_method, 1945),
     (sym_ERR_var_access_not_allowed, 3160), (sym_ERR_var_config_not_allowed, 3160),
     (sym_ERR_var_global_not_allowed, 3160), (sym_ERR_method_decl_in_body, 3150),
     (sym_extern_pragma, 7490), (sym_wasm_pragma, 3150), (sym_warn_pragma, 7490),
     (sym_allow_pragma, 3140), (sym_test_pragma, 7490), (sym_once_pragma, 7490),
     (sym_must_call_pragma, 7490), (sym_export_pragma, 7490), (sym_pou_pragma, 7194),
     (sym_direct_variable, 7675), (sym_deref_expression, 2373), (sym_variable, 7599),
     (sym_var_access, 2373), (sym_in_out_decls, 3160), (sym_var_decls, 3160),
     (sym_retain_var_decls, 3160), (sym_temp_var_decls, 3160), (sym_external_var_decls, 3160),
     (sym_global_var_decls, 2947), (sym_loc_partly_var_decl, 3160), (sym__fb_variables, 2347),
     (sym_fb_input_decls, 3160), (sym_fb_output_decls, 3160), (sym_no_retain_var_decls, 3160),
     (sym_fb_body, 9860), (sym_method_decl, 474), (sym_prog_access_decls, 3043), (sym_SFC, 7970),
     (sym_SFC_network, 7612), (sym_initial_step, 7439), (sym_config_init, 3047),
     (sym_variable_access, 7530), (sym_func_call, 2961), (sym_stmt_list, 7970), (sym__stmt, 2024),
     (sym_assign, 3150), (sym_if_stmt, 3150), (sym_case_stmt, 3150), (sym_for_stmt, 3150),
     (sym_while_stmt, 3150), (sym_repeat_stmt, 3150), (sym_raise_stmt, 3150), (sym_try_stmt, 3150),
     (sym_ERR_clause_outside_try, 3150), (sym_begin_path_expression, 2943), (sym_invocation, 2934),
     (sym_any_invocation, 2935), (sym_this_invocation, 2641), (sym_super_invocation, 2641),
     (sym_super_body_invocation, 2935), (sym_path_expression, 2627), (sym_field_expression, 2373),
     (sym_index_expression, 2373), (sym_ladder_diagram, 7970), (sym_fb_diagram, 7970),
     (aux_sym_ERR_fb_variables_after_method_repeat1, 2347), (aux_sym_func_decl_repeat1, 7194),
     (aux_sym_fb_decl_repeat3, 474), (aux_sym_SFC_repeat1, 7612), (aux_sym_stmt_list_repeat1, 2024),
     (aux_sym_ladder_diagram_repeat1, 8009), (aux_sym_fb_diagram_repeat1, 8013),
     (sym_identifier, 298), (aux_sym_ERR_unexpected_this_in_path_token1, 304),
     (aux_sym_ERR_unexpected_super_in_path_token1, 306), (sym_line_comment, 3),
     (anon_sym_LBRACE, 308), (aux_sym_test_pragma_token1, 9), (aux_sym_once_pragma_token1, 11),
     (aux_sym_must_call_pragma_token1, 13), (aux_sym_export_pragma_token1, 15),
     (anon_sym_SEMI, 310), (anon_sym_PERCENT, 312), (aux_sym_input_decls_token1, 314),
     (aux_sym_output_decls_token1, 316), (aux_sym_in_out_decls_token1, 318),
     (aux_sym_var_decls_token1, 320), (aux_sym_temp_var_decls_token1, 322),
     (aux_sym_external_var_decls_token1, 324), (aux_sym_global_var_decls_token1, 326),
     (aux_sym_fb_decl_token4, 978), (aux_sym_method_decl_token1, 330),
     (aux_sym_prog_access_decls_token1, 332), (aux_sym_initial_step_token1, 334),
     (aux_sym_config_init_token1, 336), (aux_sym__stmt_token1, 340), (aux_sym__stmt_token2, 340),
     (aux_sym__stmt_token3, 340), (aux_sym_if_stmt_token1, 342), (aux_sym_case_stmt_token1, 344),
     (aux_sym_for_stmt_token1, 346), (aux_sym_while_stmt_token1, 348),
     (aux_sym_repeat_stmt_token1, 350), (aux_sym_raise_stmt_token1, 352),
     (aux_sym_try_stmt_token1, 354), (aux_sym_try_stmt_token2, 356),
     (aux_sym_catch_clause_token1, 356), (aux_sym_finally_clause_token1, 356), (sym_ld_rung, 358),
     (sym_fbd_network, 360), (sym_c_style_comment, 3), (sym_pascal_style_comment, 3),
     (sym_pragma, 3)]"

lemma ts_parse_row_324_scan: "row_scan tokens_63_2 0 ts_parse_row_324 = Some (Suc (Suc (Suc (Suc 0))))"
  unfolding ts_parse_row_324_def by simp

text \<open>Lines 91934 to 92046.\<close>

definition ts_parse_row_325 :: parse_row where
  "ts_parse_row_325 =
    [(sym_ERR_assign_func_call, 7530), (sym_ERR_unexpected_this_in_path, 2372),
     (sym_ERR_unexpected_super_in_path, 2372), (sym_ERR_fb_variables_after_method, 1908),
     (sym_ERR_var_access_not_allowed, 3160), (sym_ERR_var_config_not_allowed, 3160),
     (sym_ERR_var_global_not_allowed, 3160), (sym_ERR_method_decl_in_body, 3150),
     (sym_extern_pragma, 7490), (sym_wasm_pragma, 3150), (sym_warn_pragma, 7490),
     (sym_allow_pragma, 3140), (sym_test_pragma, 7490), (sym_once_pragma, 7490),
     (sym_must_call_pragma, 7490), (sym_export_pragma, 7490), (sym_pou_pragma, 7194),
     (sym_direct_variable, 7675), (sym_deref_expression, 2373), (sym_variable, 7599),
     (sym_var_access, 2373), (sym_in_out_decls, 3160), (sym_var_decls, 3160),
     (sym_retain_var_decls, 3160), (sym_temp_var_decls, 3160), (sym_external_var_decls, 3160),
     (sym_global_var_decls, 2947), (sym_loc_partly_var_decl, 3160), (sym__fb_variables, 2343),
     (sym_fb_input_decls, 3160), (sym_fb_output_decls, 3160), (sym_no_retain_var_decls, 3160),
     (sym_fb_body, 9464), (sym_method_decl, 2549), (sym_prog_access_decls, 3043), (sym_SFC, 7970),
     (sym_SFC_network, 7612), (sym_initial_step, 7439), (sym_config_init, 3047),
     (sym_variable_access, 7530), (sym_func_call, 2961), (sym_stmt_list, 7970), (sym__stmt, 2024),
     (sym_assign, 3150), (sym_if_stmt, 3150), (sym_case_stmt, 3150), (sym_for_stmt, 3150),
     (sym_while_stmt, 3150), (sym_repeat_stmt, 3150), (sym_raise_stmt, 3150), (sym_try_stmt, 3150),
     (sym_ERR_clause_outside_try, 3150), (sym_begin_path_expression, 2943), (sym_invocation, 2934),
     (sym_any_invocation, 2935), (sym_this_invocation, 2641), (sym_super_invocation, 2641),
     (sym_super_body_invocation, 2935), (sym_path_expression, 2627), (sym_field_expression, 2373),
     (sym_index_expression, 2373), (sym_ladder_diagram, 7970), (sym_fb_diagram, 7970),
     (aux_sym_ERR_fb_variables_after_method_repeat1, 2343), (aux_sym_func_decl_repeat1, 7194),
     (aux_sym_fb_decl_repeat3, 2549), (aux_sym_SFC_repeat1, 7612),
     (aux_sym_stmt_list_repeat1, 2024), (aux_sym_ladder_diagram_repeat1, 8009),
     (aux_sym_fb_diagram_repeat1, 8013), (sym_identifier, 298),
     (aux_sym_ERR_unexpected_this_in_path_token1, 304),
     (aux_sym_ERR_unexpected_super_in_path_token1, 306), (sym_line_comment, 3),
     (anon_sym_LBRACE, 308), (aux_sym_test_pragma_token1, 9), (aux_sym_once_pragma_token1, 11),
     (aux_sym_must_call_pragma_token1, 13), (aux_sym_export_pragma_token1, 15),
     (anon_sym_SEMI, 310), (anon_sym_PERCENT, 312), (aux_sym_input_decls_token1, 314),
     (aux_sym_output_decls_token1, 316), (aux_sym_in_out_decls_token1, 318),
     (aux_sym_var_decls_token1, 320), (aux_sym_temp_var_decls_token1, 322),
     (aux_sym_external_var_decls_token1, 324), (aux_sym_global_var_decls_token1, 326),
     (aux_sym_fb_decl_token4, 980), (aux_sym_method_decl_token1, 330),
     (aux_sym_prog_access_decls_token1, 332), (aux_sym_initial_step_token1, 334),
     (aux_sym_config_init_token1, 336), (aux_sym__stmt_token1, 340), (aux_sym__stmt_token2, 340),
     (aux_sym__stmt_token3, 340), (aux_sym_if_stmt_token1, 342), (aux_sym_case_stmt_token1, 344),
     (aux_sym_for_stmt_token1, 346), (aux_sym_while_stmt_token1, 348),
     (aux_sym_repeat_stmt_token1, 350), (aux_sym_raise_stmt_token1, 352),
     (aux_sym_try_stmt_token1, 354), (aux_sym_try_stmt_token2, 356),
     (aux_sym_catch_clause_token1, 356), (aux_sym_finally_clause_token1, 356), (sym_ld_rung, 358),
     (sym_fbd_network, 360), (sym_c_style_comment, 3), (sym_pascal_style_comment, 3),
     (sym_pragma, 3)]"

lemma ts_parse_row_325_scan: "row_scan tokens_63_2 0 ts_parse_row_325 = Some (Suc (Suc (Suc (Suc 0))))"
  unfolding ts_parse_row_325_def by simp

text \<open>Lines 92047 to 92159.\<close>

definition ts_parse_row_326 :: parse_row where
  "ts_parse_row_326 =
    [(sym_ERR_assign_func_call, 7530), (sym_ERR_unexpected_this_in_path, 2372),
     (sym_ERR_unexpected_super_in_path, 2372), (sym_ERR_fb_variables_after_method, 1947),
     (sym_ERR_var_access_not_allowed, 3160), (sym_ERR_var_config_not_allowed, 3160),
     (sym_ERR_var_global_not_allowed, 3160), (sym_ERR_method_decl_in_body, 3150),
     (sym_extern_pragma, 7490), (sym_wasm_pragma, 3150), (sym_warn_pragma, 7490),
     (sym_allow_pragma, 3140), (sym_test_pragma, 7490), (sym_once_pragma, 7490),
     (sym_must_call_pragma, 7490), (sym_export_pragma, 7490), (sym_pou_pragma, 7194),
     (sym_direct_variable, 7675), (sym_deref_expression, 2373), (sym_variable, 7599),
     (sym_var_access, 2373), (sym_in_out_decls, 3160), (sym_var_decls, 3160),
     (sym_retain_var_decls, 3160), (sym_temp_var_decls, 3160), (sym_external_var_decls, 3160),
     (sym_global_var_decls, 2947), (sym_loc_partly_var_decl, 3160), (sym__fb_variables, 2343),
     (sym_fb_input_decls, 3160), (sym_fb_output_decls, 3160), (sym_no_retain_var_decls, 3160),
     (sym_fb_body, 9876), (sym_method_decl, 2549), (sym_prog_access_decls, 3043), (sym_SFC, 7970),
     (sym_SFC_network, 7612), (sym_initial_step, 7439), (sym_config_init, 3047),
     (sym_variable_access, 7530), (sym_func_call, 2961), (sym_stmt_list, 7970), (sym__stmt, 2024),
     (sym_assign, 3150), (sym_if_stmt, 3150), (sym_case_stmt, 3150), (sym_for_stmt, 3150),
     (sym_while_stmt, 3150), (sym_repeat_stmt, 3150), (sym_raise_stmt, 3150), (sym_try_stmt, 3150),
     (sym_ERR_clause_outside_try, 3150), (sym_begin_path_expression, 2943), (sym_invocation, 2934),
     (sym_any_invocation, 2935), (sym_this_invocation, 2641), (sym_super_invocation, 2641),
     (sym_super_body_invocation, 2935), (sym_path_expression, 2627), (sym_field_expression, 2373),
     (sym_index_expression, 2373), (sym_ladder_diagram, 7970), (sym_fb_diagram, 7970),
     (aux_sym_ERR_fb_variables_after_method_repeat1, 2343), (aux_sym_func_decl_repeat1, 7194),
     (aux_sym_fb_decl_repeat3, 2549), (aux_sym_SFC_repeat1, 7612),
     (aux_sym_stmt_list_repeat1, 2024), (aux_sym_ladder_diagram_repeat1, 8009),
     (aux_sym_fb_diagram_repeat1, 8013), (sym_identifier, 298),
     (aux_sym_ERR_unexpected_this_in_path_token1, 304),
     (aux_sym_ERR_unexpected_super_in_path_token1, 306), (sym_line_comment, 3),
     (anon_sym_LBRACE, 308), (aux_sym_test_pragma_token1, 9), (aux_sym_once_pragma_token1, 11),
     (aux_sym_must_call_pragma_token1, 13), (aux_sym_export_pragma_token1, 15),
     (anon_sym_SEMI, 310), (anon_sym_PERCENT, 312), (aux_sym_input_decls_token1, 314),
     (aux_sym_output_decls_token1, 316), (aux_sym_in_out_decls_token1, 318),
     (aux_sym_var_decls_token1, 320), (aux_sym_temp_var_decls_token1, 322),
     (aux_sym_external_var_decls_token1, 324), (aux_sym_global_var_decls_token1, 326),
     (aux_sym_fb_decl_token4, 982), (aux_sym_method_decl_token1, 330),
     (aux_sym_prog_access_decls_token1, 332), (aux_sym_initial_step_token1, 334),
     (aux_sym_config_init_token1, 336), (aux_sym__stmt_token1, 340), (aux_sym__stmt_token2, 340),
     (aux_sym__stmt_token3, 340), (aux_sym_if_stmt_token1, 342), (aux_sym_case_stmt_token1, 344),
     (aux_sym_for_stmt_token1, 346), (aux_sym_while_stmt_token1, 348),
     (aux_sym_repeat_stmt_token1, 350), (aux_sym_raise_stmt_token1, 352),
     (aux_sym_try_stmt_token1, 354), (aux_sym_try_stmt_token2, 356),
     (aux_sym_catch_clause_token1, 356), (aux_sym_finally_clause_token1, 356), (sym_ld_rung, 358),
     (sym_fbd_network, 360), (sym_c_style_comment, 3), (sym_pascal_style_comment, 3),
     (sym_pragma, 3)]"

lemma ts_parse_row_326_scan: "row_scan tokens_63_2 0 ts_parse_row_326 = Some (Suc (Suc (Suc (Suc 0))))"
  unfolding ts_parse_row_326_def by simp

text \<open>Lines 92160 to 92272.\<close>

definition ts_parse_row_327 :: parse_row where
  "ts_parse_row_327 =
    [(sym_ERR_assign_func_call, 7530), (sym_ERR_unexpected_this_in_path, 2372),
     (sym_ERR_unexpected_super_in_path, 2372), (sym_ERR_fb_variables_after_method, 1512),
     (sym_ERR_var_access_not_allowed, 3160), (sym_ERR_var_config_not_allowed, 3160),
     (sym_ERR_var_global_not_allowed, 3160), (sym_ERR_method_decl_in_body, 3150),
     (sym_extern_pragma, 7490), (sym_wasm_pragma, 3150), (sym_warn_pragma, 7490),
     (sym_allow_pragma, 3140), (sym_test_pragma, 7490), (sym_once_pragma, 7490),
     (sym_must_call_pragma, 7490), (sym_export_pragma, 7490), (sym_pou_pragma, 7194),
     (sym_direct_variable, 7675), (sym_deref_expression, 2373), (sym_variable, 7599),
     (sym_var_access, 2373), (sym_in_out_decls, 3160), (sym_var_decls, 3160),
     (sym_retain_var_decls, 3160), (sym_temp_var_decls, 3160), (sym_external_var_decls, 3160),
     (sym_global_var_decls, 2947), (sym_loc_partly_var_decl, 3160), (sym__fb_variables, 2343),
     (sym_fb_input_decls, 3160), (sym_fb_output_decls, 3160), (sym_no_retain_var_decls, 3160),
     (sym_fb_body, 10311), (sym_method_decl, 2549), (sym_prog_access_decls, 3043), (sym_SFC, 7970),
     (sym_SFC_network, 7612), (sym_initial_step, 7439), (sym_config_init, 3047),
     (sym_variable_access, 7530), (sym_func_call, 2961), (sym_stmt_list, 7970), (sym__stmt, 2024),
     (sym_assign, 3150), (sym_if_stmt, 3150), (sym_case_stmt, 3150), (sym_for_stmt, 3150),
     (sym_while_stmt, 3150), (sym_repeat_stmt, 3150), (sym_raise_stmt, 3150), (sym_try_stmt, 3150),
     (sym_ERR_clause_outside_try, 3150), (sym_begin_path_expression, 2943), (sym_invocation, 2934),
     (sym_any_invocation, 2935), (sym_this_invocation, 2641), (sym_super_invocation, 2641),
     (sym_super_body_invocation, 2935), (sym_path_expression, 2627), (sym_field_expression, 2373),
     (sym_index_expression, 2373), (sym_ladder_diagram, 7970), (sym_fb_diagram, 7970),
     (aux_sym_ERR_fb_variables_after_method_repeat1, 2343), (aux_sym_func_decl_repeat1, 7194),
     (aux_sym_fb_decl_repeat3, 2549), (aux_sym_SFC_repeat1, 7612),
     (aux_sym_stmt_list_repeat1, 2024), (aux_sym_ladder_diagram_repeat1, 8009),
     (aux_sym_fb_diagram_repeat1, 8013), (sym_identifier, 298),
     (aux_sym_ERR_unexpected_this_in_path_token1, 304),
     (aux_sym_ERR_unexpected_super_in_path_token1, 306), (sym_line_comment, 3),
     (anon_sym_LBRACE, 308), (aux_sym_test_pragma_token1, 9), (aux_sym_once_pragma_token1, 11),
     (aux_sym_must_call_pragma_token1, 13), (aux_sym_export_pragma_token1, 15),
     (anon_sym_SEMI, 310), (anon_sym_PERCENT, 312), (aux_sym_input_decls_token1, 314),
     (aux_sym_output_decls_token1, 316), (aux_sym_in_out_decls_token1, 318),
     (aux_sym_var_decls_token1, 320), (aux_sym_temp_var_decls_token1, 322),
     (aux_sym_external_var_decls_token1, 324), (aux_sym_global_var_decls_token1, 326),
     (aux_sym_fb_decl_token4, 984), (aux_sym_method_decl_token1, 330),
     (aux_sym_prog_access_decls_token1, 332), (aux_sym_initial_step_token1, 334),
     (aux_sym_config_init_token1, 336), (aux_sym__stmt_token1, 340), (aux_sym__stmt_token2, 340),
     (aux_sym__stmt_token3, 340), (aux_sym_if_stmt_token1, 342), (aux_sym_case_stmt_token1, 344),
     (aux_sym_for_stmt_token1, 346), (aux_sym_while_stmt_token1, 348),
     (aux_sym_repeat_stmt_token1, 350), (aux_sym_raise_stmt_token1, 352),
     (aux_sym_try_stmt_token1, 354), (aux_sym_try_stmt_token2, 356),
     (aux_sym_catch_clause_token1, 356), (aux_sym_finally_clause_token1, 356), (sym_ld_rung, 358),
     (sym_fbd_network, 360), (sym_c_style_comment, 3), (sym_pascal_style_comment, 3),
     (sym_pragma, 3)]"

lemma ts_parse_row_327_scan: "row_scan tokens_63_2 0 ts_parse_row_327 = Some (Suc (Suc (Suc (Suc 0))))"
  unfolding ts_parse_row_327_def by simp

text \<open>Lines 92273 to 92385.\<close>

definition ts_parse_row_328 :: parse_row where
  "ts_parse_row_328 =
    [(sym_ERR_assign_func_call, 7530), (sym_ERR_unexpected_this_in_path, 2372),
     (sym_ERR_unexpected_super_in_path, 2372), (sym_ERR_fb_variables_after_method, 1514),
     (sym_ERR_var_access_not_allowed, 3160), (sym_ERR_var_config_not_allowed, 3160),
     (sym_ERR_var_global_not_allowed, 3160), (sym_ERR_method_decl_in_body, 3150),
     (sym_extern_pragma, 7490), (sym_wasm_pragma, 3150), (sym_warn_pragma, 7490),
     (sym_allow_pragma, 3140), (sym_test_pragma, 7490), (sym_once_pragma, 7490),
     (sym_must_call_pragma, 7490), (sym_export_pragma, 7490), (sym_pou_pragma, 7194),
     (sym_direct_variable, 7675), (sym_deref_expression, 2373), (sym_variable, 7599),
     (sym_var_access, 2373), (sym_in_out_decls, 3160), (sym_var_decls, 3160),
     (sym_retain_var_decls, 3160), (sym_temp_var_decls, 3160), (sym_external_var_decls, 3160),
     (sym_global_var_decls, 2947), (sym_loc_partly_var_decl, 3160), (sym__fb_variables, 2347),
     (sym_fb_input_decls, 3160), (sym_fb_output_decls, 3160), (sym_no_retain_var_decls, 3160),
     (sym_fb_body, 10371), (sym_method_decl, 619), (sym_prog_access_decls, 3043), (sym_SFC, 7970),
     (sym_SFC_network, 7612), (sym_initial_step, 7439), (sym_config_init, 3047),
     (sym_variable_access, 7530), (sym_func_call, 2961), (sym_stmt_list, 7970), (sym__stmt, 2024),
     (sym_assign, 3150), (sym_if_stmt, 3150), (sym_case_stmt, 3150), (sym_for_stmt, 3150),
     (sym_while_stmt, 3150), (sym_repeat_stmt, 3150), (sym_raise_stmt, 3150), (sym_try_stmt, 3150),
     (sym_ERR_clause_outside_try, 3150), (sym_begin_path_expression, 2943), (sym_invocation, 2934),
     (sym_any_invocation, 2935), (sym_this_invocation, 2641), (sym_super_invocation, 2641),
     (sym_super_body_invocation, 2935), (sym_path_expression, 2627), (sym_field_expression, 2373),
     (sym_index_expression, 2373), (sym_ladder_diagram, 7970), (sym_fb_diagram, 7970),
     (aux_sym_ERR_fb_variables_after_method_repeat1, 2347), (aux_sym_func_decl_repeat1, 7194),
     (aux_sym_fb_decl_repeat3, 619), (aux_sym_SFC_repeat1, 7612), (aux_sym_stmt_list_repeat1, 2024),
     (aux_sym_ladder_diagram_repeat1, 8009), (aux_sym_fb_diagram_repeat1, 8013),
     (sym_identifier, 298), (aux_sym_ERR_unexpected_this_in_path_token1, 304),
     (aux_sym_ERR_unexpected_super_in_path_token1, 306), (sym_line_comment, 3),
     (anon_sym_LBRACE, 308), (aux_sym_test_pragma_token1, 9), (aux_sym_once_pragma_token1, 11),
     (aux_sym_must_call_pragma_token1, 13), (aux_sym_export_pragma_token1, 15),
     (anon_sym_SEMI, 310), (anon_sym_PERCENT, 312), (aux_sym_input_decls_token1, 314),
     (aux_sym_output_decls_token1, 316), (aux_sym_in_out_decls_token1, 318),
     (aux_sym_var_decls_token1, 320), (aux_sym_temp_var_decls_token1, 322),
     (aux_sym_external_var_decls_token1, 324), (aux_sym_global_var_decls_token1, 326),
     (aux_sym_fb_decl_token4, 986), (aux_sym_method_decl_token1, 330),
     (aux_sym_prog_access_decls_token1, 332), (aux_sym_initial_step_token1, 334),
     (aux_sym_config_init_token1, 336), (aux_sym__stmt_token1, 340), (aux_sym__stmt_token2, 340),
     (aux_sym__stmt_token3, 340), (aux_sym_if_stmt_token1, 342), (aux_sym_case_stmt_token1, 344),
     (aux_sym_for_stmt_token1, 346), (aux_sym_while_stmt_token1, 348),
     (aux_sym_repeat_stmt_token1, 350), (aux_sym_raise_stmt_token1, 352),
     (aux_sym_try_stmt_token1, 354), (aux_sym_try_stmt_token2, 356),
     (aux_sym_catch_clause_token1, 356), (aux_sym_finally_clause_token1, 356), (sym_ld_rung, 358),
     (sym_fbd_network, 360), (sym_c_style_comment, 3), (sym_pascal_style_comment, 3),
     (sym_pragma, 3)]"

lemma ts_parse_row_328_scan: "row_scan tokens_63_2 0 ts_parse_row_328 = Some (Suc (Suc (Suc (Suc 0))))"
  unfolding ts_parse_row_328_def by simp

text \<open>Lines 92386 to 92498.\<close>

definition ts_parse_row_329 :: parse_row where
  "ts_parse_row_329 =
    [(sym_ERR_assign_func_call, 7530), (sym_ERR_unexpected_this_in_path, 2372),
     (sym_ERR_unexpected_super_in_path, 2372), (sym_ERR_fb_variables_after_method, 1388),
     (sym_ERR_var_access_not_allowed, 3160), (sym_ERR_var_config_not_allowed, 3160),
     (sym_ERR_var_global_not_allowed, 3160), (sym_ERR_method_decl_in_body, 3150),
     (sym_extern_pragma, 7490), (sym_wasm_pragma, 3150), (sym_warn_pragma, 7490),
     (sym_allow_pragma, 3140), (sym_test_pragma, 7490), (sym_once_pragma, 7490),
     (sym_must_call_pragma, 7490), (sym_export_pragma, 7490), (sym_pou_pragma, 7194),
     (sym_direct_variable, 7675), (sym_deref_expression, 2373), (sym_variable, 7599),
     (sym_var_access, 2373), (sym_in_out_decls, 3160), (sym_var_decls, 3160),
     (sym_retain_var_decls, 3160), (sym_temp_var_decls, 3160), (sym_external_var_decls, 3160),
     (sym_global_var_decls, 2947), (sym_loc_partly_var_decl, 3160), (sym__fb_variables, 2343),
     (sym_fb_input_decls, 3160), (sym_fb_output_decls, 3160), (sym_no_retain_var_decls, 3160),
     (sym_fb_body, 9866), (sym_method_decl, 2549), (sym_prog_access_decls, 3043), (sym_SFC, 7970),
     (sym_SFC_network, 7612), (sym_initial_step, 7439), (sym_config_init, 3047),
     (sym_variable_access, 7530), (sym_func_call, 2961), (sym_stmt_list, 7970), (sym__stmt, 2024),
     (sym_assign, 3150), (sym_if_stmt, 3150), (sym_case_stmt, 3150), (sym_for_stmt, 3150),
     (sym_while_stmt, 3150), (sym_repeat_stmt, 3150), (sym_raise_stmt, 3150), (sym_try_stmt, 3150),
     (sym_ERR_clause_outside_try, 3150), (sym_begin_path_expression, 2943), (sym_invocation, 2934),
     (sym_any_invocation, 2935), (sym_this_invocation, 2641), (sym_super_invocation, 2641),
     (sym_super_body_invocation, 2935), (sym_path_expression, 2627), (sym_field_expression, 2373),
     (sym_index_expression, 2373), (sym_ladder_diagram, 7970), (sym_fb_diagram, 7970),
     (aux_sym_ERR_fb_variables_after_method_repeat1, 2343), (aux_sym_func_decl_repeat1, 7194),
     (aux_sym_fb_decl_repeat3, 2549), (aux_sym_SFC_repeat1, 7612),
     (aux_sym_stmt_list_repeat1, 2024), (aux_sym_ladder_diagram_repeat1, 8009),
     (aux_sym_fb_diagram_repeat1, 8013), (sym_identifier, 298),
     (aux_sym_ERR_unexpected_this_in_path_token1, 304),
     (aux_sym_ERR_unexpected_super_in_path_token1, 306), (sym_line_comment, 3),
     (anon_sym_LBRACE, 308), (aux_sym_test_pragma_token1, 9), (aux_sym_once_pragma_token1, 11),
     (aux_sym_must_call_pragma_token1, 13), (aux_sym_export_pragma_token1, 15),
     (anon_sym_SEMI, 310), (anon_sym_PERCENT, 312), (aux_sym_input_decls_token1, 314),
     (aux_sym_output_decls_token1, 316), (aux_sym_in_out_decls_token1, 318),
     (aux_sym_var_decls_token1, 320), (aux_sym_temp_var_decls_token1, 322),
     (aux_sym_external_var_decls_token1, 324), (aux_sym_global_var_decls_token1, 326),
     (aux_sym_fb_decl_token4, 988), (aux_sym_method_decl_token1, 330),
     (aux_sym_prog_access_decls_token1, 332), (aux_sym_initial_step_token1, 334),
     (aux_sym_config_init_token1, 336), (aux_sym__stmt_token1, 340), (aux_sym__stmt_token2, 340),
     (aux_sym__stmt_token3, 340), (aux_sym_if_stmt_token1, 342), (aux_sym_case_stmt_token1, 344),
     (aux_sym_for_stmt_token1, 346), (aux_sym_while_stmt_token1, 348),
     (aux_sym_repeat_stmt_token1, 350), (aux_sym_raise_stmt_token1, 352),
     (aux_sym_try_stmt_token1, 354), (aux_sym_try_stmt_token2, 356),
     (aux_sym_catch_clause_token1, 356), (aux_sym_finally_clause_token1, 356), (sym_ld_rung, 358),
     (sym_fbd_network, 360), (sym_c_style_comment, 3), (sym_pascal_style_comment, 3),
     (sym_pragma, 3)]"

lemma ts_parse_row_329_scan: "row_scan tokens_63_2 0 ts_parse_row_329 = Some (Suc (Suc (Suc (Suc 0))))"
  unfolding ts_parse_row_329_def by simp

text \<open>Lines 92499 to 92611.\<close>

definition ts_parse_row_330 :: parse_row where
  "ts_parse_row_330 =
    [(sym_ERR_assign_func_call, 7530), (sym_ERR_unexpected_this_in_path, 2372),
     (sym_ERR_unexpected_super_in_path, 2372), (sym_ERR_fb_variables_after_method, 1389),
     (sym_ERR_var_access_not_allowed, 3160), (sym_ERR_var_config_not_allowed, 3160),
     (sym_ERR_var_global_not_allowed, 3160), (sym_ERR_method_decl_in_body, 3150),
     (sym_extern_pragma, 7490), (sym_wasm_pragma, 3150), (sym_warn_pragma, 7490),
     (sym_allow_pragma, 3140), (sym_test_pragma, 7490), (sym_once_pragma, 7490),
     (sym_must_call_pragma, 7490), (sym_export_pragma, 7490), (sym_pou_pragma, 7194),
     (sym_direct_variable, 7675), (sym_deref_expression, 2373), (sym_variable, 7599),
     (sym_var_access, 2373), (sym_in_out_decls, 3160), (sym_var_decls, 3160),
     (sym_retain_var_decls, 3160), (sym_temp_var_decls, 3160), (sym_external_var_decls, 3160),
     (sym_global_var_decls, 2947), (sym_loc_partly_var_decl, 3160), (sym__fb_variables, 2343),
     (sym_fb_input_decls, 3160), (sym_fb_output_decls, 3160), (sym_no_retain_var_decls, 3160),
     (sym_fb_body, 9884), (sym_method_decl, 2549), (sym_prog_access_decls, 3043), (sym_SFC, 7970),
     (sym_SFC_network, 7612), (sym_initial_step, 7439), (sym_config_init, 3047),
     (sym_variable_access, 7530), (sym_func_call, 2961), (sym_stmt_list, 7970), (sym__stmt, 2024),
     (sym_assign, 3150), (sym_if_stmt, 3150), (sym_case_stmt, 3150), (sym_for_stmt, 3150),
     (sym_while_stmt, 3150), (sym_repeat_stmt, 3150), (sym_raise_stmt, 3150), (sym_try_stmt, 3150),
     (sym_ERR_clause_outside_try, 3150), (sym_begin_path_expression, 2943), (sym_invocation, 2934),
     (sym_any_invocation, 2935), (sym_this_invocation, 2641), (sym_super_invocation, 2641),
     (sym_super_body_invocation, 2935), (sym_path_expression, 2627), (sym_field_expression, 2373),
     (sym_index_expression, 2373), (sym_ladder_diagram, 7970), (sym_fb_diagram, 7970),
     (aux_sym_ERR_fb_variables_after_method_repeat1, 2343), (aux_sym_func_decl_repeat1, 7194),
     (aux_sym_fb_decl_repeat3, 2549), (aux_sym_SFC_repeat1, 7612),
     (aux_sym_stmt_list_repeat1, 2024), (aux_sym_ladder_diagram_repeat1, 8009),
     (aux_sym_fb_diagram_repeat1, 8013), (sym_identifier, 298),
     (aux_sym_ERR_unexpected_this_in_path_token1, 304),
     (aux_sym_ERR_unexpected_super_in_path_token1, 306), (sym_line_comment, 3),
     (anon_sym_LBRACE, 308), (aux_sym_test_pragma_token1, 9), (aux_sym_once_pragma_token1, 11),
     (aux_sym_must_call_pragma_token1, 13), (aux_sym_export_pragma_token1, 15),
     (anon_sym_SEMI, 310), (anon_sym_PERCENT, 312), (aux_sym_input_decls_token1, 314),
     (aux_sym_output_decls_token1, 316), (aux_sym_in_out_decls_token1, 318),
     (aux_sym_var_decls_token1, 320), (aux_sym_temp_var_decls_token1, 322),
     (aux_sym_external_var_decls_token1, 324), (aux_sym_global_var_decls_token1, 326),
     (aux_sym_fb_decl_token4, 990), (aux_sym_method_decl_token1, 330),
     (aux_sym_prog_access_decls_token1, 332), (aux_sym_initial_step_token1, 334),
     (aux_sym_config_init_token1, 336), (aux_sym__stmt_token1, 340), (aux_sym__stmt_token2, 340),
     (aux_sym__stmt_token3, 340), (aux_sym_if_stmt_token1, 342), (aux_sym_case_stmt_token1, 344),
     (aux_sym_for_stmt_token1, 346), (aux_sym_while_stmt_token1, 348),
     (aux_sym_repeat_stmt_token1, 350), (aux_sym_raise_stmt_token1, 352),
     (aux_sym_try_stmt_token1, 354), (aux_sym_try_stmt_token2, 356),
     (aux_sym_catch_clause_token1, 356), (aux_sym_finally_clause_token1, 356), (sym_ld_rung, 358),
     (sym_fbd_network, 360), (sym_c_style_comment, 3), (sym_pascal_style_comment, 3),
     (sym_pragma, 3)]"

lemma ts_parse_row_330_scan: "row_scan tokens_63_2 0 ts_parse_row_330 = Some (Suc (Suc (Suc (Suc 0))))"
  unfolding ts_parse_row_330_def by simp

text \<open>Lines 92612 to 92724.\<close>

definition ts_parse_row_331 :: parse_row where
  "ts_parse_row_331 =
    [(sym_ERR_assign_func_call, 7530), (sym_ERR_unexpected_this_in_path, 2372),
     (sym_ERR_unexpected_super_in_path, 2372), (sym_ERR_fb_variables_after_method, 1394),
     (sym_ERR_var_access_not_allowed, 3160), (sym_ERR_var_config_not_allowed, 3160),
     (sym_ERR_var_global_not_allowed, 3160), (sym_ERR_method_decl_in_body, 3150),
     (sym_extern_pragma, 7490), (sym_wasm_pragma, 3150), (sym_warn_pragma, 7490),
     (sym_allow_pragma, 3140), (sym_test_pragma, 7490), (sym_once_pragma, 7490),
     (sym_must_call_pragma, 7490), (sym_export_pragma, 7490), (sym_pou_pragma, 7194),
     (sym_direct_variable, 7675), (sym_deref_expression, 2373), (sym_variable, 7599),
     (sym_var_access, 2373), (sym_in_out_decls, 3160), (sym_var_decls, 3160),
     (sym_retain_var_decls, 3160), (sym_temp_var_decls, 3160), (sym_external_var_decls, 3160),
     (sym_global_var_decls, 2947), (sym_loc_partly_var_decl, 3160), (sym__fb_variables, 2347),
     (sym_fb_input_decls, 3160), (sym_fb_output_decls, 3160), (sym_no_retain_var_decls, 3160),
     (sym_fb_body, 9897), (sym_method_decl, 870), (sym_prog_access_decls, 3043), (sym_SFC, 7970),
     (sym_SFC_network, 7612), (sym_initial_step, 7439), (sym_config_init, 3047),
     (sym_variable_access, 7530), (sym_func_call, 2961), (sym_stmt_list, 7970), (sym__stmt, 2024),
     (sym_assign, 3150), (sym_if_stmt, 3150), (sym_case_stmt, 3150), (sym_for_stmt, 3150),
     (sym_while_stmt, 3150), (sym_repeat_stmt, 3150), (sym_raise_stmt, 3150), (sym_try_stmt, 3150),
     (sym_ERR_clause_outside_try, 3150), (sym_begin_path_expression, 2943), (sym_invocation, 2934),
     (sym_any_invocation, 2935), (sym_this_invocation, 2641), (sym_super_invocation, 2641),
     (sym_super_body_invocation, 2935), (sym_path_expression, 2627), (sym_field_expression, 2373),
     (sym_index_expression, 2373), (sym_ladder_diagram, 7970), (sym_fb_diagram, 7970),
     (aux_sym_ERR_fb_variables_after_method_repeat1, 2347), (aux_sym_func_decl_repeat1, 7194),
     (aux_sym_fb_decl_repeat3, 870), (aux_sym_SFC_repeat1, 7612), (aux_sym_stmt_list_repeat1, 2024),
     (aux_sym_ladder_diagram_repeat1, 8009), (aux_sym_fb_diagram_repeat1, 8013),
     (sym_identifier, 298), (aux_sym_ERR_unexpected_this_in_path_token1, 304),
     (aux_sym_ERR_unexpected_super_in_path_token1, 306), (sym_line_comment, 3),
     (anon_sym_LBRACE, 308), (aux_sym_test_pragma_token1, 9), (aux_sym_once_pragma_token1, 11),
     (aux_sym_must_call_pragma_token1, 13), (aux_sym_export_pragma_token1, 15),
     (anon_sym_SEMI, 310), (anon_sym_PERCENT, 312), (aux_sym_input_decls_token1, 314),
     (aux_sym_output_decls_token1, 316), (aux_sym_in_out_decls_token1, 318),
     (aux_sym_var_decls_token1, 320), (aux_sym_temp_var_decls_token1, 322),
     (aux_sym_external_var_decls_token1, 324), (aux_sym_global_var_decls_token1, 326),
     (aux_sym_fb_decl_token4, 992), (aux_sym_method_decl_token1, 330),
     (aux_sym_prog_access_decls_token1, 332), (aux_sym_initial_step_token1, 334),
     (aux_sym_config_init_token1, 336), (aux_sym__stmt_token1, 340), (aux_sym__stmt_token2, 340),
     (aux_sym__stmt_token3, 340), (aux_sym_if_stmt_token1, 342), (aux_sym_case_stmt_token1, 344),
     (aux_sym_for_stmt_token1, 346), (aux_sym_while_stmt_token1, 348),
     (aux_sym_repeat_stmt_token1, 350), (aux_sym_raise_stmt_token1, 352),
     (aux_sym_try_stmt_token1, 354), (aux_sym_try_stmt_token2, 356),
     (aux_sym_catch_clause_token1, 356), (aux_sym_finally_clause_token1, 356), (sym_ld_rung, 358),
     (sym_fbd_network, 360), (sym_c_style_comment, 3), (sym_pascal_style_comment, 3),
     (sym_pragma, 3)]"

lemma ts_parse_row_331_scan: "row_scan tokens_63_2 0 ts_parse_row_331 = Some (Suc (Suc (Suc (Suc 0))))"
  unfolding ts_parse_row_331_def by simp

text \<open>Lines 92725 to 92837.\<close>

definition ts_parse_row_332 :: parse_row where
  "ts_parse_row_332 =
    [(sym_ERR_assign_func_call, 7530), (sym_ERR_unexpected_this_in_path, 2372),
     (sym_ERR_unexpected_super_in_path, 2372), (sym_ERR_fb_variables_after_method, 1953),
     (sym_ERR_var_access_not_allowed, 3160), (sym_ERR_var_config_not_allowed, 3160),
     (sym_ERR_var_global_not_allowed, 3160), (sym_ERR_method_decl_in_body, 3150),
     (sym_extern_pragma, 7490), (sym_wasm_pragma, 3150), (sym_warn_pragma, 7490),
     (sym_allow_pragma, 3140), (sym_test_pragma, 7490), (sym_once_pragma, 7490),
     (sym_must_call_pragma, 7490), (sym_export_pragma, 7490), (sym_pou_pragma, 7194),
     (sym_direct_variable, 7675), (sym_deref_expression, 2373), (sym_variable, 7599),
     (sym_var_access, 2373), (sym_in_out_decls, 3160), (sym_var_decls, 3160),
     (sym_retain_var_decls, 3160), (sym_temp_var_decls, 3160), (sym_external_var_decls, 3160),
     (sym_global_var_decls, 2947), (sym_loc_partly_var_decl, 3160), (sym__fb_variables, 2343),
     (sym_fb_input_decls, 3160), (sym_fb_output_decls, 3160), (sym_no_retain_var_decls, 3160),
     (sym_fb_body, 10396), (sym_method_decl, 2549), (sym_prog_access_decls, 3043), (sym_SFC, 7970),
     (sym_SFC_network, 7612), (sym_initial_step, 7439), (sym_config_init, 3047),
     (sym_variable_access, 7530), (sym_func_call, 2961), (sym_stmt_list, 7970), (sym__stmt, 2024),
     (sym_assign, 3150), (sym_if_stmt, 3150), (sym_case_stmt, 3150), (sym_for_stmt, 3150),
     (sym_while_stmt, 3150), (sym_repeat_stmt, 3150), (sym_raise_stmt, 3150), (sym_try_stmt, 3150),
     (sym_ERR_clause_outside_try, 3150), (sym_begin_path_expression, 2943), (sym_invocation, 2934),
     (sym_any_invocation, 2935), (sym_this_invocation, 2641), (sym_super_invocation, 2641),
     (sym_super_body_invocation, 2935), (sym_path_expression, 2627), (sym_field_expression, 2373),
     (sym_index_expression, 2373), (sym_ladder_diagram, 7970), (sym_fb_diagram, 7970),
     (aux_sym_ERR_fb_variables_after_method_repeat1, 2343), (aux_sym_func_decl_repeat1, 7194),
     (aux_sym_fb_decl_repeat3, 2549), (aux_sym_SFC_repeat1, 7612),
     (aux_sym_stmt_list_repeat1, 2024), (aux_sym_ladder_diagram_repeat1, 8009),
     (aux_sym_fb_diagram_repeat1, 8013), (sym_identifier, 298),
     (aux_sym_ERR_unexpected_this_in_path_token1, 304),
     (aux_sym_ERR_unexpected_super_in_path_token1, 306), (sym_line_comment, 3),
     (anon_sym_LBRACE, 308), (aux_sym_test_pragma_token1, 9), (aux_sym_once_pragma_token1, 11),
     (aux_sym_must_call_pragma_token1, 13), (aux_sym_export_pragma_token1, 15),
     (anon_sym_SEMI, 310), (anon_sym_PERCENT, 312), (aux_sym_input_decls_token1, 314),
     (aux_sym_output_decls_token1, 316), (aux_sym_in_out_decls_token1, 318),
     (aux_sym_var_decls_token1, 320), (aux_sym_temp_var_decls_token1, 322),
     (aux_sym_external_var_decls_token1, 324), (aux_sym_global_var_decls_token1, 326),
     (aux_sym_fb_decl_token4, 994), (aux_sym_method_decl_token1, 330),
     (aux_sym_prog_access_decls_token1, 332), (aux_sym_initial_step_token1, 334),
     (aux_sym_config_init_token1, 336), (aux_sym__stmt_token1, 340), (aux_sym__stmt_token2, 340),
     (aux_sym__stmt_token3, 340), (aux_sym_if_stmt_token1, 342), (aux_sym_case_stmt_token1, 344),
     (aux_sym_for_stmt_token1, 346), (aux_sym_while_stmt_token1, 348),
     (aux_sym_repeat_stmt_token1, 350), (aux_sym_raise_stmt_token1, 352),
     (aux_sym_try_stmt_token1, 354), (aux_sym_try_stmt_token2, 356),
     (aux_sym_catch_clause_token1, 356), (aux_sym_finally_clause_token1, 356), (sym_ld_rung, 358),
     (sym_fbd_network, 360), (sym_c_style_comment, 3), (sym_pascal_style_comment, 3),
     (sym_pragma, 3)]"

lemma ts_parse_row_332_scan: "row_scan tokens_63_2 0 ts_parse_row_332 = Some (Suc (Suc (Suc (Suc 0))))"
  unfolding ts_parse_row_332_def by simp

text \<open>Lines 92838 to 92950.\<close>

definition ts_parse_row_333 :: parse_row where
  "ts_parse_row_333 =
    [(sym_ERR_assign_func_call, 7530), (sym_ERR_unexpected_this_in_path, 2372),
     (sym_ERR_unexpected_super_in_path, 2372), (sym_ERR_fb_variables_after_method, 1954),
     (sym_ERR_var_access_not_allowed, 3160), (sym_ERR_var_config_not_allowed, 3160),
     (sym_ERR_var_global_not_allowed, 3160), (sym_ERR_method_decl_in_body, 3150),
     (sym_extern_pragma, 7490), (sym_wasm_pragma, 3150), (sym_warn_pragma, 7490),
     (sym_allow_pragma, 3140), (sym_test_pragma, 7490), (sym_once_pragma, 7490),
     (sym_must_call_pragma, 7490), (sym_export_pragma, 7490), (sym_pou_pragma, 7194),
     (sym_direct_variable, 7675), (sym_deref_expression, 2373), (sym_variable, 7599),
     (sym_var_access, 2373), (sym_in_out_decls, 3160), (sym_var_decls, 3160),
     (sym_retain_var_decls, 3160), (sym_temp_var_decls, 3160), (sym_external_var_decls, 3160),
     (sym_global_var_decls, 2947), (sym_loc_partly_var_decl, 3160), (sym__fb_variables, 2343),
     (sym_fb_input_decls, 3160), (sym_fb_output_decls, 3160), (sym_no_retain_var_decls, 3160),
     (sym_fb_body, 10469), (sym_method_decl, 2549), (sym_prog_access_decls, 3043), (sym_SFC, 7970),
     (sym_SFC_network, 7612), (sym_initial_step, 7439), (sym_config_init, 3047),
     (sym_variable_access, 7530), (sym_func_call, 2961), (sym_stmt_list, 7970), (sym__stmt, 2024),
     (sym_assign, 3150), (sym_if_stmt, 3150), (sym_case_stmt, 3150), (sym_for_stmt, 3150),
     (sym_while_stmt, 3150), (sym_repeat_stmt, 3150), (sym_raise_stmt, 3150), (sym_try_stmt, 3150),
     (sym_ERR_clause_outside_try, 3150), (sym_begin_path_expression, 2943), (sym_invocation, 2934),
     (sym_any_invocation, 2935), (sym_this_invocation, 2641), (sym_super_invocation, 2641),
     (sym_super_body_invocation, 2935), (sym_path_expression, 2627), (sym_field_expression, 2373),
     (sym_index_expression, 2373), (sym_ladder_diagram, 7970), (sym_fb_diagram, 7970),
     (aux_sym_ERR_fb_variables_after_method_repeat1, 2343), (aux_sym_func_decl_repeat1, 7194),
     (aux_sym_fb_decl_repeat3, 2549), (aux_sym_SFC_repeat1, 7612),
     (aux_sym_stmt_list_repeat1, 2024), (aux_sym_ladder_diagram_repeat1, 8009),
     (aux_sym_fb_diagram_repeat1, 8013), (sym_identifier, 298),
     (aux_sym_ERR_unexpected_this_in_path_token1, 304),
     (aux_sym_ERR_unexpected_super_in_path_token1, 306), (sym_line_comment, 3),
     (anon_sym_LBRACE, 308), (aux_sym_test_pragma_token1, 9), (aux_sym_once_pragma_token1, 11),
     (aux_sym_must_call_pragma_token1, 13), (aux_sym_export_pragma_token1, 15),
     (anon_sym_SEMI, 310), (anon_sym_PERCENT, 312), (aux_sym_input_decls_token1, 314),
     (aux_sym_output_decls_token1, 316), (aux_sym_in_out_decls_token1, 318),
     (aux_sym_var_decls_token1, 320), (aux_sym_temp_var_decls_token1, 322),
     (aux_sym_external_var_decls_token1, 324), (aux_sym_global_var_decls_token1, 326),
     (aux_sym_fb_decl_token4, 996), (aux_sym_method_decl_token1, 330),
     (aux_sym_prog_access_decls_token1, 332), (aux_sym_initial_step_token1, 334),
     (aux_sym_config_init_token1, 336), (aux_sym__stmt_token1, 340), (aux_sym__stmt_token2, 340),
     (aux_sym__stmt_token3, 340), (aux_sym_if_stmt_token1, 342), (aux_sym_case_stmt_token1, 344),
     (aux_sym_for_stmt_token1, 346), (aux_sym_while_stmt_token1, 348),
     (aux_sym_repeat_stmt_token1, 350), (aux_sym_raise_stmt_token1, 352),
     (aux_sym_try_stmt_token1, 354), (aux_sym_try_stmt_token2, 356),
     (aux_sym_catch_clause_token1, 356), (aux_sym_finally_clause_token1, 356), (sym_ld_rung, 358),
     (sym_fbd_network, 360), (sym_c_style_comment, 3), (sym_pascal_style_comment, 3),
     (sym_pragma, 3)]"

lemma ts_parse_row_333_scan: "row_scan tokens_63_2 0 ts_parse_row_333 = Some (Suc (Suc (Suc (Suc 0))))"
  unfolding ts_parse_row_333_def by simp

text \<open>Lines 92951 to 93063.\<close>

definition ts_parse_row_334 :: parse_row where
  "ts_parse_row_334 =
    [(sym_ERR_assign_func_call, 7530), (sym_ERR_unexpected_this_in_path, 2372),
     (sym_ERR_unexpected_super_in_path, 2372), (sym_ERR_fb_variables_after_method, 1955),
     (sym_ERR_var_access_not_allowed, 3160), (sym_ERR_var_config_not_allowed, 3160),
     (sym_ERR_var_global_not_allowed, 3160), (sym_ERR_method_decl_in_body, 3150),
     (sym_extern_pragma, 7490), (sym_wasm_pragma, 3150), (sym_warn_pragma, 7490),
     (sym_allow_pragma, 3140), (sym_test_pragma, 7490), (sym_once_pragma, 7490),
     (sym_must_call_pragma, 7490), (sym_export_pragma, 7490), (sym_pou_pragma, 7194),
     (sym_direct_variable, 7675), (sym_deref_expression, 2373), (sym_variable, 7599),
     (sym_var_access, 2373), (sym_in_out_decls, 3160), (sym_var_decls, 3160),
     (sym_retain_var_decls, 3160), (sym_temp_var_decls, 3160), (sym_external_var_decls, 3160),
     (sym_global_var_decls, 2947), (sym_loc_partly_var_decl, 3160), (sym__fb_variables, 2347),
     (sym_fb_input_decls, 3160), (sym_fb_output_decls, 3160), (sym_no_retain_var_decls, 3160),
     (sym_fb_body, 10503), (sym_method_decl, 478), (sym_prog_access_decls, 3043), (sym_SFC, 7970),
     (sym_SFC_network, 7612), (sym_initial_step, 7439), (sym_config_init, 3047),
     (sym_variable_access, 7530), (sym_func_call, 2961), (sym_stmt_list, 7970), (sym__stmt, 2024),
     (sym_assign, 3150), (sym_if_stmt, 3150), (sym_case_stmt, 3150), (sym_for_stmt, 3150),
     (sym_while_stmt, 3150), (sym_repeat_stmt, 3150), (sym_raise_stmt, 3150), (sym_try_stmt, 3150),
     (sym_ERR_clause_outside_try, 3150), (sym_begin_path_expression, 2943), (sym_invocation, 2934),
     (sym_any_invocation, 2935), (sym_this_invocation, 2641), (sym_super_invocation, 2641),
     (sym_super_body_invocation, 2935), (sym_path_expression, 2627), (sym_field_expression, 2373),
     (sym_index_expression, 2373), (sym_ladder_diagram, 7970), (sym_fb_diagram, 7970),
     (aux_sym_ERR_fb_variables_after_method_repeat1, 2347), (aux_sym_func_decl_repeat1, 7194),
     (aux_sym_fb_decl_repeat3, 478), (aux_sym_SFC_repeat1, 7612), (aux_sym_stmt_list_repeat1, 2024),
     (aux_sym_ladder_diagram_repeat1, 8009), (aux_sym_fb_diagram_repeat1, 8013),
     (sym_identifier, 298), (aux_sym_ERR_unexpected_this_in_path_token1, 304),
     (aux_sym_ERR_unexpected_super_in_path_token1, 306), (sym_line_comment, 3),
     (anon_sym_LBRACE, 308), (aux_sym_test_pragma_token1, 9), (aux_sym_once_pragma_token1, 11),
     (aux_sym_must_call_pragma_token1, 13), (aux_sym_export_pragma_token1, 15),
     (anon_sym_SEMI, 310), (anon_sym_PERCENT, 312), (aux_sym_input_decls_token1, 314),
     (aux_sym_output_decls_token1, 316), (aux_sym_in_out_decls_token1, 318),
     (aux_sym_var_decls_token1, 320), (aux_sym_temp_var_decls_token1, 322),
     (aux_sym_external_var_decls_token1, 324), (aux_sym_global_var_decls_token1, 326),
     (aux_sym_fb_decl_token4, 998), (aux_sym_method_decl_token1, 330),
     (aux_sym_prog_access_decls_token1, 332), (aux_sym_initial_step_token1, 334),
     (aux_sym_config_init_token1, 336), (aux_sym__stmt_token1, 340), (aux_sym__stmt_token2, 340),
     (aux_sym__stmt_token3, 340), (aux_sym_if_stmt_token1, 342), (aux_sym_case_stmt_token1, 344),
     (aux_sym_for_stmt_token1, 346), (aux_sym_while_stmt_token1, 348),
     (aux_sym_repeat_stmt_token1, 350), (aux_sym_raise_stmt_token1, 352),
     (aux_sym_try_stmt_token1, 354), (aux_sym_try_stmt_token2, 356),
     (aux_sym_catch_clause_token1, 356), (aux_sym_finally_clause_token1, 356), (sym_ld_rung, 358),
     (sym_fbd_network, 360), (sym_c_style_comment, 3), (sym_pascal_style_comment, 3),
     (sym_pragma, 3)]"

lemma ts_parse_row_334_scan: "row_scan tokens_63_2 0 ts_parse_row_334 = Some (Suc (Suc (Suc (Suc 0))))"
  unfolding ts_parse_row_334_def by simp

text \<open>Lines 93064 to 93176.\<close>

definition ts_parse_row_335 :: parse_row where
  "ts_parse_row_335 =
    [(sym_ERR_assign_func_call, 7530), (sym_ERR_unexpected_this_in_path, 2372),
     (sym_ERR_unexpected_super_in_path, 2372), (sym_ERR_fb_variables_after_method, 1957),
     (sym_ERR_var_access_not_allowed, 3160), (sym_ERR_var_config_not_allowed, 3160),
     (sym_ERR_var_global_not_allowed, 3160), (sym_ERR_method_decl_in_body, 3150),
     (sym_extern_pragma, 7490), (sym_wasm_pragma, 3150), (sym_warn_pragma, 7490),
     (sym_allow_pragma, 3140), (sym_test_pragma, 7490), (sym_once_pragma, 7490),
     (sym_must_call_pragma, 7490), (sym_export_pragma, 7490), (sym_pou_pragma, 7194),
     (sym_direct_variable, 7675), (sym_deref_expression, 2373), (sym_variable, 7599),
     (sym_var_access, 2373), (sym_in_out_decls, 3160), (sym_var_decls, 3160),
     (sym_retain_var_decls, 3160), (sym_temp_var_decls, 3160), (sym_external_var_decls, 3160),
     (sym_global_var_decls, 2947), (sym_loc_partly_var_decl, 3160), (sym__fb_variables, 2343),
     (sym_fb_input_decls, 3160), (sym_fb_output_decls, 3160), (sym_no_retain_var_decls, 3160),
     (sym_fb_body, 10532), (sym_method_decl, 2549), (sym_prog_access_decls, 3043), (sym_SFC, 7970),
     (sym_SFC_network, 7612), (sym_initial_step, 7439), (sym_config_init, 3047),
     (sym_variable_access, 7530), (sym_func_call, 2961), (sym_stmt_list, 7970), (sym__stmt, 2024),
     (sym_assign, 3150), (sym_if_stmt, 3150), (sym_case_stmt, 3150), (sym_for_stmt, 3150),
     (sym_while_stmt, 3150), (sym_repeat_stmt, 3150), (sym_raise_stmt, 3150), (sym_try_stmt, 3150),
     (sym_ERR_clause_outside_try, 3150), (sym_begin_path_expression, 2943), (sym_invocation, 2934),
     (sym_any_invocation, 2935), (sym_this_invocation, 2641), (sym_super_invocation, 2641),
     (sym_super_body_invocation, 2935), (sym_path_expression, 2627), (sym_field_expression, 2373),
     (sym_index_expression, 2373), (sym_ladder_diagram, 7970), (sym_fb_diagram, 7970),
     (aux_sym_ERR_fb_variables_after_method_repeat1, 2343), (aux_sym_func_decl_repeat1, 7194),
     (aux_sym_fb_decl_repeat3, 2549), (aux_sym_SFC_repeat1, 7612),
     (aux_sym_stmt_list_repeat1, 2024), (aux_sym_ladder_diagram_repeat1, 8009),
     (aux_sym_fb_diagram_repeat1, 8013), (sym_identifier, 298),
     (aux_sym_ERR_unexpected_this_in_path_token1, 304),
     (aux_sym_ERR_unexpected_super_in_path_token1, 306), (sym_line_comment, 3),
     (anon_sym_LBRACE, 308), (aux_sym_test_pragma_token1, 9), (aux_sym_once_pragma_token1, 11),
     (aux_sym_must_call_pragma_token1, 13), (aux_sym_export_pragma_token1, 15),
     (anon_sym_SEMI, 310), (anon_sym_PERCENT, 312), (aux_sym_input_decls_token1, 314),
     (aux_sym_output_decls_token1, 316), (aux_sym_in_out_decls_token1, 318),
     (aux_sym_var_decls_token1, 320), (aux_sym_temp_var_decls_token1, 322),
     (aux_sym_external_var_decls_token1, 324), (aux_sym_global_var_decls_token1, 326),
     (aux_sym_fb_decl_token4, 1000), (aux_sym_method_decl_token1, 330),
     (aux_sym_prog_access_decls_token1, 332), (aux_sym_initial_step_token1, 334),
     (aux_sym_config_init_token1, 336), (aux_sym__stmt_token1, 340), (aux_sym__stmt_token2, 340),
     (aux_sym__stmt_token3, 340), (aux_sym_if_stmt_token1, 342), (aux_sym_case_stmt_token1, 344),
     (aux_sym_for_stmt_token1, 346), (aux_sym_while_stmt_token1, 348),
     (aux_sym_repeat_stmt_token1, 350), (aux_sym_raise_stmt_token1, 352),
     (aux_sym_try_stmt_token1, 354), (aux_sym_try_stmt_token2, 356),
     (aux_sym_catch_clause_token1, 356), (aux_sym_finally_clause_token1, 356), (sym_ld_rung, 358),
     (sym_fbd_network, 360), (sym_c_style_comment, 3), (sym_pascal_style_comment, 3),
     (sym_pragma, 3)]"

lemma ts_parse_row_335_scan: "row_scan tokens_63_2 0 ts_parse_row_335 = Some (Suc (Suc (Suc (Suc 0))))"
  unfolding ts_parse_row_335_def by simp

text \<open>Lines 93177 to 93289.\<close>

definition ts_parse_row_336 :: parse_row where
  "ts_parse_row_336 =
    [(sym_ERR_assign_func_call, 7530), (sym_ERR_unexpected_this_in_path, 2372),
     (sym_ERR_unexpected_super_in_path, 2372), (sym_ERR_fb_variables_after_method, 1958),
     (sym_ERR_var_access_not_allowed, 3160), (sym_ERR_var_config_not_allowed, 3160),
     (sym_ERR_var_global_not_allowed, 3160), (sym_ERR_method_decl_in_body, 3150),
     (sym_extern_pragma, 7490), (sym_wasm_pragma, 3150), (sym_warn_pragma, 7490),
     (sym_allow_pragma, 3140), (sym_test_pragma, 7490), (sym_once_pragma, 7490),
     (sym_must_call_pragma, 7490), (sym_export_pragma, 7490), (sym_pou_pragma, 7194),
     (sym_direct_variable, 7675), (sym_deref_expression, 2373), (sym_variable, 7599),
     (sym_var_access, 2373), (sym_in_out_decls, 3160), (sym_var_decls, 3160),
     (sym_retain_var_decls, 3160), (sym_temp_var_decls, 3160), (sym_external_var_decls, 3160),
     (sym_global_var_decls, 2947), (sym_loc_partly_var_decl, 3160), (sym__fb_variables, 2347),
     (sym_fb_input_decls, 3160), (sym_fb_output_decls, 3160), (sym_no_retain_var_decls, 3160),
     (sym_fb_body, 8233), (sym_method_decl, 479), (sym_prog_access_decls, 3043), (sym_SFC, 7970),
     (sym_SFC_network, 7612), (sym_initial_step, 7439), (sym_config_init, 3047),
     (sym_variable_access, 7530), (sym_func_call, 2961), (sym_stmt_list, 7970), (sym__stmt, 2024),
     (sym_assign, 3150), (sym_if_stmt, 3150), (sym_case_stmt, 3150), (sym_for_stmt, 3150),
     (sym_while_stmt, 3150), (sym_repeat_stmt, 3150), (sym_raise_stmt, 3150), (sym_try_stmt, 3150),
     (sym_ERR_clause_outside_try, 3150), (sym_begin_path_expression, 2943), (sym_invocation, 2934),
     (sym_any_invocation, 2935), (sym_this_invocation, 2641), (sym_super_invocation, 2641),
     (sym_super_body_invocation, 2935), (sym_path_expression, 2627), (sym_field_expression, 2373),
     (sym_index_expression, 2373), (sym_ladder_diagram, 7970), (sym_fb_diagram, 7970),
     (aux_sym_ERR_fb_variables_after_method_repeat1, 2347), (aux_sym_func_decl_repeat1, 7194),
     (aux_sym_fb_decl_repeat3, 479), (aux_sym_SFC_repeat1, 7612), (aux_sym_stmt_list_repeat1, 2024),
     (aux_sym_ladder_diagram_repeat1, 8009), (aux_sym_fb_diagram_repeat1, 8013),
     (sym_identifier, 298), (aux_sym_ERR_unexpected_this_in_path_token1, 304),
     (aux_sym_ERR_unexpected_super_in_path_token1, 306), (sym_line_comment, 3),
     (anon_sym_LBRACE, 308), (aux_sym_test_pragma_token1, 9), (aux_sym_once_pragma_token1, 11),
     (aux_sym_must_call_pragma_token1, 13), (aux_sym_export_pragma_token1, 15),
     (anon_sym_SEMI, 310), (anon_sym_PERCENT, 312), (aux_sym_input_decls_token1, 314),
     (aux_sym_output_decls_token1, 316), (aux_sym_in_out_decls_token1, 318),
     (aux_sym_var_decls_token1, 320), (aux_sym_temp_var_decls_token1, 322),
     (aux_sym_external_var_decls_token1, 324), (aux_sym_global_var_decls_token1, 326),
     (aux_sym_fb_decl_token4, 1002), (aux_sym_method_decl_token1, 330),
     (aux_sym_prog_access_decls_token1, 332), (aux_sym_initial_step_token1, 334),
     (aux_sym_config_init_token1, 336), (aux_sym__stmt_token1, 340), (aux_sym__stmt_token2, 340),
     (aux_sym__stmt_token3, 340), (aux_sym_if_stmt_token1, 342), (aux_sym_case_stmt_token1, 344),
     (aux_sym_for_stmt_token1, 346), (aux_sym_while_stmt_token1, 348),
     (aux_sym_repeat_stmt_token1, 350), (aux_sym_raise_stmt_token1, 352),
     (aux_sym_try_stmt_token1, 354), (aux_sym_try_stmt_token2, 356),
     (aux_sym_catch_clause_token1, 356), (aux_sym_finally_clause_token1, 356), (sym_ld_rung, 358),
     (sym_fbd_network, 360), (sym_c_style_comment, 3), (sym_pascal_style_comment, 3),
     (sym_pragma, 3)]"

lemma ts_parse_row_336_scan: "row_scan tokens_63_2 0 ts_parse_row_336 = Some (Suc (Suc (Suc (Suc 0))))"
  unfolding ts_parse_row_336_def by simp

text \<open>Lines 93290 to 93402.\<close>

definition ts_parse_row_337 :: parse_row where
  "ts_parse_row_337 =
    [(sym_ERR_assign_func_call, 7530), (sym_ERR_unexpected_this_in_path, 2372),
     (sym_ERR_unexpected_super_in_path, 2372), (sym_ERR_fb_variables_after_method, 1401),
     (sym_ERR_var_access_not_allowed, 3160), (sym_ERR_var_config_not_allowed, 3160),
     (sym_ERR_var_global_not_allowed, 3160), (sym_ERR_method_decl_in_body, 3150),
     (sym_extern_pragma, 7490), (sym_wasm_pragma, 3150), (sym_warn_pragma, 7490),
     (sym_allow_pragma, 3140), (sym_test_pragma, 7490), (sym_once_pragma, 7490),
     (sym_must_call_pragma, 7490), (sym_export_pragma, 7490), (sym_pou_pragma, 7194),
     (sym_direct_variable, 7675), (sym_deref_expression, 2373), (sym_variable, 7599),
     (sym_var_access, 2373), (sym_in_out_decls, 3160), (sym_var_decls, 3160),
     (sym_retain_var_decls, 3160), (sym_temp_var_decls, 3160), (sym_external_var_decls, 3160),
     (sym_global_var_decls, 2947), (sym_loc_partly_var_decl, 3160), (sym__fb_variables, 2343),
     (sym_fb_input_decls, 3160), (sym_fb_output_decls, 3160), (sym_no_retain_var_decls, 3160),
     (sym_fb_body, 9970), (sym_method_decl, 2549), (sym_prog_access_decls, 3043), (sym_SFC, 7970),
     (sym_SFC_network, 7612), (sym_initial_step, 7439), (sym_config_init, 3047),
     (sym_variable_access, 7530), (sym_func_call, 2961), (sym_stmt_list, 7970), (sym__stmt, 2024),
     (sym_assign, 3150), (sym_if_stmt, 3150), (sym_case_stmt, 3150), (sym_for_stmt, 3150),
     (sym_while_stmt, 3150), (sym_repeat_stmt, 3150), (sym_raise_stmt, 3150), (sym_try_stmt, 3150),
     (sym_ERR_clause_outside_try, 3150), (sym_begin_path_expression, 2943), (sym_invocation, 2934),
     (sym_any_invocation, 2935), (sym_this_invocation, 2641), (sym_super_invocation, 2641),
     (sym_super_body_invocation, 2935), (sym_path_expression, 2627), (sym_field_expression, 2373),
     (sym_index_expression, 2373), (sym_ladder_diagram, 7970), (sym_fb_diagram, 7970),
     (aux_sym_ERR_fb_variables_after_method_repeat1, 2343), (aux_sym_func_decl_repeat1, 7194),
     (aux_sym_fb_decl_repeat3, 2549), (aux_sym_SFC_repeat1, 7612),
     (aux_sym_stmt_list_repeat1, 2024), (aux_sym_ladder_diagram_repeat1, 8009),
     (aux_sym_fb_diagram_repeat1, 8013), (sym_identifier, 298),
     (aux_sym_ERR_unexpected_this_in_path_token1, 304),
     (aux_sym_ERR_unexpected_super_in_path_token1, 306), (sym_line_comment, 3),
     (anon_sym_LBRACE, 308), (aux_sym_test_pragma_token1, 9), (aux_sym_once_pragma_token1, 11),
     (aux_sym_must_call_pragma_token1, 13), (aux_sym_export_pragma_token1, 15),
     (anon_sym_SEMI, 310), (anon_sym_PERCENT, 312), (aux_sym_input_decls_token1, 314),
     (aux_sym_output_decls_token1, 316), (aux_sym_in_out_decls_token1, 318),
     (aux_sym_var_decls_token1, 320), (aux_sym_temp_var_decls_token1, 322),
     (aux_sym_external_var_decls_token1, 324), (aux_sym_global_var_decls_token1, 326),
     (aux_sym_fb_decl_token4, 1004), (aux_sym_method_decl_token1, 330),
     (aux_sym_prog_access_decls_token1, 332), (aux_sym_initial_step_token1, 334),
     (aux_sym_config_init_token1, 336), (aux_sym__stmt_token1, 340), (aux_sym__stmt_token2, 340),
     (aux_sym__stmt_token3, 340), (aux_sym_if_stmt_token1, 342), (aux_sym_case_stmt_token1, 344),
     (aux_sym_for_stmt_token1, 346), (aux_sym_while_stmt_token1, 348),
     (aux_sym_repeat_stmt_token1, 350), (aux_sym_raise_stmt_token1, 352),
     (aux_sym_try_stmt_token1, 354), (aux_sym_try_stmt_token2, 356),
     (aux_sym_catch_clause_token1, 356), (aux_sym_finally_clause_token1, 356), (sym_ld_rung, 358),
     (sym_fbd_network, 360), (sym_c_style_comment, 3), (sym_pascal_style_comment, 3),
     (sym_pragma, 3)]"

lemma ts_parse_row_337_scan: "row_scan tokens_63_2 0 ts_parse_row_337 = Some (Suc (Suc (Suc (Suc 0))))"
  unfolding ts_parse_row_337_def by simp

text \<open>Lines 93403 to 93515.\<close>

definition ts_parse_row_338 :: parse_row where
  "ts_parse_row_338 =
    [(sym_ERR_assign_func_call, 7530), (sym_ERR_unexpected_this_in_path, 2372),
     (sym_ERR_unexpected_super_in_path, 2372), (sym_ERR_fb_variables_after_method, 1403),
     (sym_ERR_var_access_not_allowed, 3160), (sym_ERR_var_config_not_allowed, 3160),
     (sym_ERR_var_global_not_allowed, 3160), (sym_ERR_method_decl_in_body, 3150),
     (sym_extern_pragma, 7490), (sym_wasm_pragma, 3150), (sym_warn_pragma, 7490),
     (sym_allow_pragma, 3140), (sym_test_pragma, 7490), (sym_once_pragma, 7490),
     (sym_must_call_pragma, 7490), (sym_export_pragma, 7490), (sym_pou_pragma, 7194),
     (sym_direct_variable, 7675), (sym_deref_expression, 2373), (sym_variable, 7599),
     (sym_var_access, 2373), (sym_in_out_decls, 3160), (sym_var_decls, 3160),
     (sym_retain_var_decls, 3160), (sym_temp_var_decls, 3160), (sym_external_var_decls, 3160),
     (sym_global_var_decls, 2947), (sym_loc_partly_var_decl, 3160), (sym__fb_variables, 2347),
     (sym_fb_input_decls, 3160), (sym_fb_output_decls, 3160), (sym_no_retain_var_decls, 3160),
     (sym_fb_body, 10018), (sym_method_decl, 871), (sym_prog_access_decls, 3043), (sym_SFC, 7970),
     (sym_SFC_network, 7612), (sym_initial_step, 7439), (sym_config_init, 3047),
     (sym_variable_access, 7530), (sym_func_call, 2961), (sym_stmt_list, 7970), (sym__stmt, 2024),
     (sym_assign, 3150), (sym_if_stmt, 3150), (sym_case_stmt, 3150), (sym_for_stmt, 3150),
     (sym_while_stmt, 3150), (sym_repeat_stmt, 3150), (sym_raise_stmt, 3150), (sym_try_stmt, 3150),
     (sym_ERR_clause_outside_try, 3150), (sym_begin_path_expression, 2943), (sym_invocation, 2934),
     (sym_any_invocation, 2935), (sym_this_invocation, 2641), (sym_super_invocation, 2641),
     (sym_super_body_invocation, 2935), (sym_path_expression, 2627), (sym_field_expression, 2373),
     (sym_index_expression, 2373), (sym_ladder_diagram, 7970), (sym_fb_diagram, 7970),
     (aux_sym_ERR_fb_variables_after_method_repeat1, 2347), (aux_sym_func_decl_repeat1, 7194),
     (aux_sym_fb_decl_repeat3, 871), (aux_sym_SFC_repeat1, 7612), (aux_sym_stmt_list_repeat1, 2024),
     (aux_sym_ladder_diagram_repeat1, 8009), (aux_sym_fb_diagram_repeat1, 8013),
     (sym_identifier, 298), (aux_sym_ERR_unexpected_this_in_path_token1, 304),
     (aux_sym_ERR_unexpected_super_in_path_token1, 306), (sym_line_comment, 3),
     (anon_sym_LBRACE, 308), (aux_sym_test_pragma_token1, 9), (aux_sym_once_pragma_token1, 11),
     (aux_sym_must_call_pragma_token1, 13), (aux_sym_export_pragma_token1, 15),
     (anon_sym_SEMI, 310), (anon_sym_PERCENT, 312), (aux_sym_input_decls_token1, 314),
     (aux_sym_output_decls_token1, 316), (aux_sym_in_out_decls_token1, 318),
     (aux_sym_var_decls_token1, 320), (aux_sym_temp_var_decls_token1, 322),
     (aux_sym_external_var_decls_token1, 324), (aux_sym_global_var_decls_token1, 326),
     (aux_sym_fb_decl_token4, 1006), (aux_sym_method_decl_token1, 330),
     (aux_sym_prog_access_decls_token1, 332), (aux_sym_initial_step_token1, 334),
     (aux_sym_config_init_token1, 336), (aux_sym__stmt_token1, 340), (aux_sym__stmt_token2, 340),
     (aux_sym__stmt_token3, 340), (aux_sym_if_stmt_token1, 342), (aux_sym_case_stmt_token1, 344),
     (aux_sym_for_stmt_token1, 346), (aux_sym_while_stmt_token1, 348),
     (aux_sym_repeat_stmt_token1, 350), (aux_sym_raise_stmt_token1, 352),
     (aux_sym_try_stmt_token1, 354), (aux_sym_try_stmt_token2, 356),
     (aux_sym_catch_clause_token1, 356), (aux_sym_finally_clause_token1, 356), (sym_ld_rung, 358),
     (sym_fbd_network, 360), (sym_c_style_comment, 3), (sym_pascal_style_comment, 3),
     (sym_pragma, 3)]"

lemma ts_parse_row_338_scan: "row_scan tokens_63_2 0 ts_parse_row_338 = Some (Suc (Suc (Suc (Suc 0))))"
  unfolding ts_parse_row_338_def by simp

text \<open>Lines 93516 to 93628.\<close>

definition ts_parse_row_339 :: parse_row where
  "ts_parse_row_339 =
    [(sym_ERR_assign_func_call, 7530), (sym_ERR_unexpected_this_in_path, 2372),
     (sym_ERR_unexpected_super_in_path, 2372), (sym_ERR_fb_variables_after_method, 1963),
     (sym_ERR_var_access_not_allowed, 3160), (sym_ERR_var_config_not_allowed, 3160),
     (sym_ERR_var_global_not_allowed, 3160), (sym_ERR_method_decl_in_body, 3150),
     (sym_extern_pragma, 7490), (sym_wasm_pragma, 3150), (sym_warn_pragma, 7490),
     (sym_allow_pragma, 3140), (sym_test_pragma, 7490), (sym_once_pragma, 7490),
     (sym_must_call_pragma, 7490), (sym_export_pragma, 7490), (sym_pou_pragma, 7194),
     (sym_direct_variable, 7675), (sym_deref_expression, 2373), (sym_variable, 7599),
     (sym_var_access, 2373), (sym_in_out_decls, 3160), (sym_var_decls, 3160),
     (sym_retain_var_decls, 3160), (sym_temp_var_decls, 3160), (sym_external_var_decls, 3160),
     (sym_global_var_decls, 2947), (sym_loc_partly_var_decl, 3160), (sym__fb_variables, 2343),
     (sym_fb_input_decls, 3160), (sym_fb_output_decls, 3160), (sym_no_retain_var_decls, 3160),
     (sym_fb_body, 8256), (sym_method_decl, 2549), (sym_prog_access_decls, 3043), (sym_SFC, 7970),
     (sym_SFC_network, 7612), (sym_initial_step, 7439), (sym_config_init, 3047),
     (sym_variable_access, 7530), (sym_func_call, 2961), (sym_stmt_list, 7970), (sym__stmt, 2024),
     (sym_assign, 3150), (sym_if_stmt, 3150), (sym_case_stmt, 3150), (sym_for_stmt, 3150),
     (sym_while_stmt, 3150), (sym_repeat_stmt, 3150), (sym_raise_stmt, 3150), (sym_try_stmt, 3150),
     (sym_ERR_clause_outside_try, 3150), (sym_begin_path_expression, 2943), (sym_invocation, 2934),
     (sym_any_invocation, 2935), (sym_this_invocation, 2641), (sym_super_invocation, 2641),
     (sym_super_body_invocation, 2935), (sym_path_expression, 2627), (sym_field_expression, 2373),
     (sym_index_expression, 2373), (sym_ladder_diagram, 7970), (sym_fb_diagram, 7970),
     (aux_sym_ERR_fb_variables_after_method_repeat1, 2343), (aux_sym_func_decl_repeat1, 7194),
     (aux_sym_fb_decl_repeat3, 2549), (aux_sym_SFC_repeat1, 7612),
     (aux_sym_stmt_list_repeat1, 2024), (aux_sym_ladder_diagram_repeat1, 8009),
     (aux_sym_fb_diagram_repeat1, 8013), (sym_identifier, 298),
     (aux_sym_ERR_unexpected_this_in_path_token1, 304),
     (aux_sym_ERR_unexpected_super_in_path_token1, 306), (sym_line_comment, 3),
     (anon_sym_LBRACE, 308), (aux_sym_test_pragma_token1, 9), (aux_sym_once_pragma_token1, 11),
     (aux_sym_must_call_pragma_token1, 13), (aux_sym_export_pragma_token1, 15),
     (anon_sym_SEMI, 310), (anon_sym_PERCENT, 312), (aux_sym_input_decls_token1, 314),
     (aux_sym_output_decls_token1, 316), (aux_sym_in_out_decls_token1, 318),
     (aux_sym_var_decls_token1, 320), (aux_sym_temp_var_decls_token1, 322),
     (aux_sym_external_var_decls_token1, 324), (aux_sym_global_var_decls_token1, 326),
     (aux_sym_fb_decl_token4, 1008), (aux_sym_method_decl_token1, 330),
     (aux_sym_prog_access_decls_token1, 332), (aux_sym_initial_step_token1, 334),
     (aux_sym_config_init_token1, 336), (aux_sym__stmt_token1, 340), (aux_sym__stmt_token2, 340),
     (aux_sym__stmt_token3, 340), (aux_sym_if_stmt_token1, 342), (aux_sym_case_stmt_token1, 344),
     (aux_sym_for_stmt_token1, 346), (aux_sym_while_stmt_token1, 348),
     (aux_sym_repeat_stmt_token1, 350), (aux_sym_raise_stmt_token1, 352),
     (aux_sym_try_stmt_token1, 354), (aux_sym_try_stmt_token2, 356),
     (aux_sym_catch_clause_token1, 356), (aux_sym_finally_clause_token1, 356), (sym_ld_rung, 358),
     (sym_fbd_network, 360), (sym_c_style_comment, 3), (sym_pascal_style_comment, 3),
     (sym_pragma, 3)]"

lemma ts_parse_row_339_scan: "row_scan tokens_63_2 0 ts_parse_row_339 = Some (Suc (Suc (Suc (Suc 0))))"
  unfolding ts_parse_row_339_def by simp

text \<open>Lines 93629 to 93741.\<close>

definition ts_parse_row_340 :: parse_row where
  "ts_parse_row_340 =
    [(sym_ERR_assign_func_call, 7530), (sym_ERR_unexpected_this_in_path, 2372),
     (sym_ERR_unexpected_super_in_path, 2372), (sym_ERR_fb_variables_after_method, 1964),
     (sym_ERR_var_access_not_allowed, 3160), (sym_ERR_var_config_not_allowed, 3160),
     (sym_ERR_var_global_not_allowed, 3160), (sym_ERR_method_decl_in_body, 3150),
     (sym_extern_pragma, 7490), (sym_wasm_pragma, 3150), (sym_warn_pragma, 7490),
     (sym_allow_pragma, 3140), (sym_test_pragma, 7490), (sym_once_pragma, 7490),
     (sym_must_call_pragma, 7490), (sym_export_pragma, 7490), (sym_pou_pragma, 7194),
     (sym_direct_variable, 7675), (sym_deref_expression, 2373), (sym_variable, 7599),
     (sym_var_access, 2373), (sym_in_out_decls, 3160), (sym_var_decls, 3160),
     (sym_retain_var_decls, 3160), (sym_temp_var_decls, 3160), (sym_external_var_decls, 3160),
     (sym_global_var_decls, 2947), (sym_loc_partly_var_decl, 3160), (sym__fb_variables, 2343),
     (sym_fb_input_decls, 3160), (sym_fb_output_decls, 3160), (sym_no_retain_var_decls, 3160),
     (sym_fb_body, 8276), (sym_method_decl, 2549), (sym_prog_access_decls, 3043), (sym_SFC, 7970),
     (sym_SFC_network, 7612), (sym_initial_step, 7439), (sym_config_init, 3047),
     (sym_variable_access, 7530), (sym_func_call, 2961), (sym_stmt_list, 7970), (sym__stmt, 2024),
     (sym_assign, 3150), (sym_if_stmt, 3150), (sym_case_stmt, 3150), (sym_for_stmt, 3150),
     (sym_while_stmt, 3150), (sym_repeat_stmt, 3150), (sym_raise_stmt, 3150), (sym_try_stmt, 3150),
     (sym_ERR_clause_outside_try, 3150), (sym_begin_path_expression, 2943), (sym_invocation, 2934),
     (sym_any_invocation, 2935), (sym_this_invocation, 2641), (sym_super_invocation, 2641),
     (sym_super_body_invocation, 2935), (sym_path_expression, 2627), (sym_field_expression, 2373),
     (sym_index_expression, 2373), (sym_ladder_diagram, 7970), (sym_fb_diagram, 7970),
     (aux_sym_ERR_fb_variables_after_method_repeat1, 2343), (aux_sym_func_decl_repeat1, 7194),
     (aux_sym_fb_decl_repeat3, 2549), (aux_sym_SFC_repeat1, 7612),
     (aux_sym_stmt_list_repeat1, 2024), (aux_sym_ladder_diagram_repeat1, 8009),
     (aux_sym_fb_diagram_repeat1, 8013), (sym_identifier, 298),
     (aux_sym_ERR_unexpected_this_in_path_token1, 304),
     (aux_sym_ERR_unexpected_super_in_path_token1, 306), (sym_line_comment, 3),
     (anon_sym_LBRACE, 308), (aux_sym_test_pragma_token1, 9), (aux_sym_once_pragma_token1, 11),
     (aux_sym_must_call_pragma_token1, 13), (aux_sym_export_pragma_token1, 15),
     (anon_sym_SEMI, 310), (anon_sym_PERCENT, 312), (aux_sym_input_decls_token1, 314),
     (aux_sym_output_decls_token1, 316), (aux_sym_in_out_decls_token1, 318),
     (aux_sym_var_decls_token1, 320), (aux_sym_temp_var_decls_token1, 322),
     (aux_sym_external_var_decls_token1, 324), (aux_sym_global_var_decls_token1, 326),
     (aux_sym_fb_decl_token4, 1010), (aux_sym_method_decl_token1, 330),
     (aux_sym_prog_access_decls_token1, 332), (aux_sym_initial_step_token1, 334),
     (aux_sym_config_init_token1, 336), (aux_sym__stmt_token1, 340), (aux_sym__stmt_token2, 340),
     (aux_sym__stmt_token3, 340), (aux_sym_if_stmt_token1, 342), (aux_sym_case_stmt_token1, 344),
     (aux_sym_for_stmt_token1, 346), (aux_sym_while_stmt_token1, 348),
     (aux_sym_repeat_stmt_token1, 350), (aux_sym_raise_stmt_token1, 352),
     (aux_sym_try_stmt_token1, 354), (aux_sym_try_stmt_token2, 356),
     (aux_sym_catch_clause_token1, 356), (aux_sym_finally_clause_token1, 356), (sym_ld_rung, 358),
     (sym_fbd_network, 360), (sym_c_style_comment, 3), (sym_pascal_style_comment, 3),
     (sym_pragma, 3)]"

lemma ts_parse_row_340_scan: "row_scan tokens_63_2 0 ts_parse_row_340 = Some (Suc (Suc (Suc (Suc 0))))"
  unfolding ts_parse_row_340_def by simp

text \<open>Lines 93742 to 93854.\<close>

definition ts_parse_row_341 :: parse_row where
  "ts_parse_row_341 =
    [(sym_ERR_assign_func_call, 7530), (sym_ERR_unexpected_this_in_path, 2372),
     (sym_ERR_unexpected_super_in_path, 2372), (sym_ERR_fb_variables_after_method, 1914),
     (sym_ERR_var_access_not_allowed, 3160), (sym_ERR_var_config_not_allowed, 3160),
     (sym_ERR_var_global_not_allowed, 3160), (sym_ERR_method_decl_in_body, 3150),
     (sym_extern_pragma, 7490), (sym_wasm_pragma, 3150), (sym_warn_pragma, 7490),
     (sym_allow_pragma, 3140), (sym_test_pragma, 7490), (sym_once_pragma, 7490),
     (sym_must_call_pragma, 7490), (sym_export_pragma, 7490), (sym_pou_pragma, 7194),
     (sym_direct_variable, 7675), (sym_deref_expression, 2373), (sym_variable, 7599),
     (sym_var_access, 2373), (sym_in_out_decls, 3160), (sym_var_decls, 3160),
     (sym_retain_var_decls, 3160), (sym_temp_var_decls, 3160), (sym_external_var_decls, 3160),
     (sym_global_var_decls, 2947), (sym_loc_partly_var_decl, 3160), (sym__fb_variables, 2347),
     (sym_fb_input_decls, 3160), (sym_fb_output_decls, 3160), (sym_no_retain_var_decls, 3160),
     (sym_fb_body, 9624), (sym_method_decl, 437), (sym_prog_access_decls, 3043), (sym_SFC, 7970),
     (sym_SFC_network, 7612), (sym_initial_step, 7439), (sym_config_init, 3047),
     (sym_variable_access, 7530), (sym_func_call, 2961), (sym_stmt_list, 7970), (sym__stmt, 2024),
     (sym_assign, 3150), (sym_if_stmt, 3150), (sym_case_stmt, 3150), (sym_for_stmt, 3150),
     (sym_while_stmt, 3150), (sym_repeat_stmt, 3150), (sym_raise_stmt, 3150), (sym_try_stmt, 3150),
     (sym_ERR_clause_outside_try, 3150), (sym_begin_path_expression, 2943), (sym_invocation, 2934),
     (sym_any_invocation, 2935), (sym_this_invocation, 2641), (sym_super_invocation, 2641),
     (sym_super_body_invocation, 2935), (sym_path_expression, 2627), (sym_field_expression, 2373),
     (sym_index_expression, 2373), (sym_ladder_diagram, 7970), (sym_fb_diagram, 7970),
     (aux_sym_ERR_fb_variables_after_method_repeat1, 2347), (aux_sym_func_decl_repeat1, 7194),
     (aux_sym_fb_decl_repeat3, 437), (aux_sym_SFC_repeat1, 7612), (aux_sym_stmt_list_repeat1, 2024),
     (aux_sym_ladder_diagram_repeat1, 8009), (aux_sym_fb_diagram_repeat1, 8013),
     (sym_identifier, 298), (aux_sym_ERR_unexpected_this_in_path_token1, 304),
     (aux_sym_ERR_unexpected_super_in_path_token1, 306), (sym_line_comment, 3),
     (anon_sym_LBRACE, 308), (aux_sym_test_pragma_token1, 9), (aux_sym_once_pragma_token1, 11),
     (aux_sym_must_call_pragma_token1, 13), (aux_sym_export_pragma_token1, 15),
     (anon_sym_SEMI, 310), (anon_sym_PERCENT, 312), (aux_sym_input_decls_token1, 314),
     (aux_sym_output_decls_token1, 316), (aux_sym_in_out_decls_token1, 318),
     (aux_sym_var_decls_token1, 320), (aux_sym_temp_var_decls_token1, 322),
     (aux_sym_external_var_decls_token1, 324), (aux_sym_global_var_decls_token1, 326),
     (aux_sym_fb_decl_token4, 1012), (aux_sym_method_decl_token1, 330),
     (aux_sym_prog_access_decls_token1, 332), (aux_sym_initial_step_token1, 334),
     (aux_sym_config_init_token1, 336), (aux_sym__stmt_token1, 340), (aux_sym__stmt_token2, 340),
     (aux_sym__stmt_token3, 340), (aux_sym_if_stmt_token1, 342), (aux_sym_case_stmt_token1, 344),
     (aux_sym_for_stmt_token1, 346), (aux_sym_while_stmt_token1, 348),
     (aux_sym_repeat_stmt_token1, 350), (aux_sym_raise_stmt_token1, 352),
     (aux_sym_try_stmt_token1, 354), (aux_sym_try_stmt_token2, 356),
     (aux_sym_catch_clause_token1, 356), (aux_sym_finally_clause_token1, 356), (sym_ld_rung, 358),
     (sym_fbd_network, 360), (sym_c_style_comment, 3), (sym_pascal_style_comment, 3),
     (sym_pragma, 3)]"

lemma ts_parse_row_341_scan: "row_scan tokens_63_2 0 ts_parse_row_341 = Some (Suc (Suc (Suc (Suc 0))))"
  unfolding ts_parse_row_341_def by simp

text \<open>Lines 93855 to 93967.\<close>

definition ts_parse_row_342 :: parse_row where
  "ts_parse_row_342 =
    [(sym_ERR_assign_func_call, 7530), (sym_ERR_unexpected_this_in_path, 2372),
     (sym_ERR_unexpected_super_in_path, 2372), (sym_ERR_fb_variables_after_method, 1968),
     (sym_ERR_var_access_not_allowed, 3160), (sym_ERR_var_config_not_allowed, 3160),
     (sym_ERR_var_global_not_allowed, 3160), (sym_ERR_method_decl_in_body, 3150),
     (sym_extern_pragma, 7490), (sym_wasm_pragma, 3150), (sym_warn_pragma, 7490),
     (sym_allow_pragma, 3140), (sym_test_pragma, 7490), (sym_once_pragma, 7490),
     (sym_must_call_pragma, 7490), (sym_export_pragma, 7490), (sym_pou_pragma, 7194),
     (sym_direct_variable, 7675), (sym_deref_expression, 2373), (sym_variable, 7599),
     (sym_var_access, 2373), (sym_in_out_decls, 3160), (sym_var_decls, 3160),
     (sym_retain_var_decls, 3160), (sym_temp_var_decls, 3160), (sym_external_var_decls, 3160),
     (sym_global_var_decls, 2947), (sym_loc_partly_var_decl, 3160), (sym__fb_variables, 2343),
     (sym_fb_input_decls, 3160), (sym_fb_output_decls, 3160), (sym_no_retain_var_decls, 3160),
     (sym_fb_body, 8310), (sym_method_decl, 2549), (sym_prog_access_decls, 3043), (sym_SFC, 7970),
     (sym_SFC_network, 7612), (sym_initial_step, 7439), (sym_config_init, 3047),
     (sym_variable_access, 7530), (sym_func_call, 2961), (sym_stmt_list, 7970), (sym__stmt, 2024),
     (sym_assign, 3150), (sym_if_stmt, 3150), (sym_case_stmt, 3150), (sym_for_stmt, 3150),
     (sym_while_stmt, 3150), (sym_repeat_stmt, 3150), (sym_raise_stmt, 3150), (sym_try_stmt, 3150),
     (sym_ERR_clause_outside_try, 3150), (sym_begin_path_expression, 2943), (sym_invocation, 2934),
     (sym_any_invocation, 2935), (sym_this_invocation, 2641), (sym_super_invocation, 2641),
     (sym_super_body_invocation, 2935), (sym_path_expression, 2627), (sym_field_expression, 2373),
     (sym_index_expression, 2373), (sym_ladder_diagram, 7970), (sym_fb_diagram, 7970),
     (aux_sym_ERR_fb_variables_after_method_repeat1, 2343), (aux_sym_func_decl_repeat1, 7194),
     (aux_sym_fb_decl_repeat3, 2549), (aux_sym_SFC_repeat1, 7612),
     (aux_sym_stmt_list_repeat1, 2024), (aux_sym_ladder_diagram_repeat1, 8009),
     (aux_sym_fb_diagram_repeat1, 8013), (sym_identifier, 298),
     (aux_sym_ERR_unexpected_this_in_path_token1, 304),
     (aux_sym_ERR_unexpected_super_in_path_token1, 306), (sym_line_comment, 3),
     (anon_sym_LBRACE, 308), (aux_sym_test_pragma_token1, 9), (aux_sym_once_pragma_token1, 11),
     (aux_sym_must_call_pragma_token1, 13), (aux_sym_export_pragma_token1, 15),
     (anon_sym_SEMI, 310), (anon_sym_PERCENT, 312), (aux_sym_input_decls_token1, 314),
     (aux_sym_output_decls_token1, 316), (aux_sym_in_out_decls_token1, 318),
     (aux_sym_var_decls_token1, 320), (aux_sym_temp_var_decls_token1, 322),
     (aux_sym_external_var_decls_token1, 324), (aux_sym_global_var_decls_token1, 326),
     (aux_sym_fb_decl_token4, 1014), (aux_sym_method_decl_token1, 330),
     (aux_sym_prog_access_decls_token1, 332), (aux_sym_initial_step_token1, 334),
     (aux_sym_config_init_token1, 336), (aux_sym__stmt_token1, 340), (aux_sym__stmt_token2, 340),
     (aux_sym__stmt_token3, 340), (aux_sym_if_stmt_token1, 342), (aux_sym_case_stmt_token1, 344),
     (aux_sym_for_stmt_token1, 346), (aux_sym_while_stmt_token1, 348),
     (aux_sym_repeat_stmt_token1, 350), (aux_sym_raise_stmt_token1, 352),
     (aux_sym_try_stmt_token1, 354), (aux_sym_try_stmt_token2, 356),
     (aux_sym_catch_clause_token1, 356), (aux_sym_finally_clause_token1, 356), (sym_ld_rung, 358),
     (sym_fbd_network, 360), (sym_c_style_comment, 3), (sym_pascal_style_comment, 3),
     (sym_pragma, 3)]"

lemma ts_parse_row_342_scan: "row_scan tokens_63_2 0 ts_parse_row_342 = Some (Suc (Suc (Suc (Suc 0))))"
  unfolding ts_parse_row_342_def by simp

text \<open>Lines 93968 to 94080.\<close>

definition ts_parse_row_343 :: parse_row where
  "ts_parse_row_343 =
    [(sym_ERR_assign_func_call, 7530), (sym_ERR_unexpected_this_in_path, 2372),
     (sym_ERR_unexpected_super_in_path, 2372), (sym_ERR_fb_variables_after_method, 1969),
     (sym_ERR_var_access_not_allowed, 3160), (sym_ERR_var_config_not_allowed, 3160),
     (sym_ERR_var_global_not_allowed, 3160), (sym_ERR_method_decl_in_body, 3150),
     (sym_extern_pragma, 7490), (sym_wasm_pragma, 3150), (sym_warn_pragma, 7490),
     (sym_allow_pragma, 3140), (sym_test_pragma, 7490), (sym_once_pragma, 7490),
     (sym_must_call_pragma, 7490), (sym_export_pragma, 7490), (sym_pou_pragma, 7194),
     (sym_direct_variable, 7675), (sym_deref_expression, 2373), (sym_variable, 7599),
     (sym_var_access, 2373), (sym_in_out_decls, 3160), (sym_var_decls, 3160),
     (sym_retain_var_decls, 3160), (sym_temp_var_decls, 3160), (sym_external_var_decls, 3160),
     (sym_global_var_decls, 2947), (sym_loc_partly_var_decl, 3160), (sym__fb_variables, 2347),
     (sym_fb_input_decls, 3160), (sym_fb_output_decls, 3160), (sym_no_retain_var_decls, 3160),
     (sym_fb_body, 8320), (sym_method_decl, 489), (sym_prog_access_decls, 3043), (sym_SFC, 7970),
     (sym_SFC_network, 7612), (sym_initial_step, 7439), (sym_config_init, 3047),
     (sym_variable_access, 7530), (sym_func_call, 2961), (sym_stmt_list, 7970), (sym__stmt, 2024),
     (sym_assign, 3150), (sym_if_stmt, 3150), (sym_case_stmt, 3150), (sym_for_stmt, 3150),
     (sym_while_stmt, 3150), (sym_repeat_stmt, 3150), (sym_raise_stmt, 3150), (sym_try_stmt, 3150),
     (sym_ERR_clause_outside_try, 3150), (sym_begin_path_expression, 2943), (sym_invocation, 2934),
     (sym_any_invocation, 2935), (sym_this_invocation, 2641), (sym_super_invocation, 2641),
     (sym_super_body_invocation, 2935), (sym_path_expression, 2627), (sym_field_expression, 2373),
     (sym_index_expression, 2373), (sym_ladder_diagram, 7970), (sym_fb_diagram, 7970),
     (aux_sym_ERR_fb_variables_after_method_repeat1, 2347), (aux_sym_func_decl_repeat1, 7194),
     (aux_sym_fb_decl_repeat3, 489), (aux_sym_SFC_repeat1, 7612), (aux_sym_stmt_list_repeat1, 2024),
     (aux_sym_ladder_diagram_repeat1, 8009), (aux_sym_fb_diagram_repeat1, 8013),
     (sym_identifier, 298), (aux_sym_ERR_unexpected_this_in_path_token1, 304),
     (aux_sym_ERR_unexpected_super_in_path_token1, 306), (sym_line_comment, 3),
     (anon_sym_LBRACE, 308), (aux_sym_test_pragma_token1, 9), (aux_sym_once_pragma_token1, 11),
     (aux_sym_must_call_pragma_token1, 13), (aux_sym_export_pragma_token1, 15),
     (anon_sym_SEMI, 310), (anon_sym_PERCENT, 312), (aux_sym_input_decls_token1, 314),
     (aux_sym_output_decls_token1, 316), (aux_sym_in_out_decls_token1, 318),
     (aux_sym_var_decls_token1, 320), (aux_sym_temp_var_decls_token1, 322),
     (aux_sym_external_var_decls_token1, 324), (aux_sym_global_var_decls_token1, 326),
     (aux_sym_fb_decl_token4, 1016), (aux_sym_method_decl_token1, 330),
     (aux_sym_prog_access_decls_token1, 332), (aux_sym_initial_step_token1, 334),
     (aux_sym_config_init_token1, 336), (aux_sym__stmt_token1, 340), (aux_sym__stmt_token2, 340),
     (aux_sym__stmt_token3, 340), (aux_sym_if_stmt_token1, 342), (aux_sym_case_stmt_token1, 344),
     (aux_sym_for_stmt_token1, 346), (aux_sym_while_stmt_token1, 348),
     (aux_sym_repeat_stmt_token1, 350), (aux_sym_raise_stmt_token1, 352),
     (aux_sym_try_stmt_token1, 354), (aux_sym_try_stmt_token2, 356),
     (aux_sym_catch_clause_token1, 356), (aux_sym_finally_clause_token1, 356), (sym_ld_rung, 358),
     (sym_fbd_network, 360), (sym_c_style_comment, 3), (sym_pascal_style_comment, 3),
     (sym_pragma, 3)]"

lemma ts_parse_row_343_scan: "row_scan tokens_63_2 0 ts_parse_row_343 = Some (Suc (Suc (Suc (Suc 0))))"
  unfolding ts_parse_row_343_def by simp

text \<open>Lines 94081 to 94193.\<close>

definition ts_parse_row_344 :: parse_row where
  "ts_parse_row_344 =
    [(sym_ERR_assign_func_call, 7530), (sym_ERR_unexpected_this_in_path, 2372),
     (sym_ERR_unexpected_super_in_path, 2372), (sym_ERR_fb_variables_after_method, 1970),
     (sym_ERR_var_access_not_allowed, 3160), (sym_ERR_var_config_not_allowed, 3160),
     (sym_ERR_var_global_not_allowed, 3160), (sym_ERR_method_decl_in_body, 3150),
     (sym_extern_pragma, 7490), (sym_wasm_pragma, 3150), (sym_warn_pragma, 7490),
     (sym_allow_pragma, 3140), (sym_test_pragma, 7490), (sym_once_pragma, 7490),
     (sym_must_call_pragma, 7490), (sym_export_pragma, 7490), (sym_pou_pragma, 7194),
     (sym_direct_variable, 7675), (sym_deref_expression, 2373), (sym_variable, 7599),
     (sym_var_access, 2373), (sym_in_out_decls, 3160), (sym_var_decls, 3160),
     (sym_retain_var_decls, 3160), (sym_temp_var_decls, 3160), (sym_external_var_decls, 3160),
     (sym_global_var_decls, 2947), (sym_loc_partly_var_decl, 3160), (sym__fb_variables, 2343),
     (sym_fb_input_decls, 3160), (sym_fb_output_decls, 3160), (sym_no_retain_var_decls, 3160),
     (sym_fb_body, 8329), (sym_method_decl, 2549), (sym_prog_access_decls, 3043), (sym_SFC, 7970),
     (sym_SFC_network, 7612), (sym_initial_step, 7439), (sym_config_init, 3047),
     (sym_variable_access, 7530), (sym_func_call, 2961), (sym_stmt_list, 7970), (sym__stmt, 2024),
     (sym_assign, 3150), (sym_if_stmt, 3150), (sym_case_stmt, 3150), (sym_for_stmt, 3150),
     (sym_while_stmt, 3150), (sym_repeat_stmt, 3150), (sym_raise_stmt, 3150), (sym_try_stmt, 3150),
     (sym_ERR_clause_outside_try, 3150), (sym_begin_path_expression, 2943), (sym_invocation, 2934),
     (sym_any_invocation, 2935), (sym_this_invocation, 2641), (sym_super_invocation, 2641),
     (sym_super_body_invocation, 2935), (sym_path_expression, 2627), (sym_field_expression, 2373),
     (sym_index_expression, 2373), (sym_ladder_diagram, 7970), (sym_fb_diagram, 7970),
     (aux_sym_ERR_fb_variables_after_method_repeat1, 2343), (aux_sym_func_decl_repeat1, 7194),
     (aux_sym_fb_decl_repeat3, 2549), (aux_sym_SFC_repeat1, 7612),
     (aux_sym_stmt_list_repeat1, 2024), (aux_sym_ladder_diagram_repeat1, 8009),
     (aux_sym_fb_diagram_repeat1, 8013), (sym_identifier, 298),
     (aux_sym_ERR_unexpected_this_in_path_token1, 304),
     (aux_sym_ERR_unexpected_super_in_path_token1, 306), (sym_line_comment, 3),
     (anon_sym_LBRACE, 308), (aux_sym_test_pragma_token1, 9), (aux_sym_once_pragma_token1, 11),
     (aux_sym_must_call_pragma_token1, 13), (aux_sym_export_pragma_token1, 15),
     (anon_sym_SEMI, 310), (anon_sym_PERCENT, 312), (aux_sym_input_decls_token1, 314),
     (aux_sym_output_decls_token1, 316), (aux_sym_in_out_decls_token1, 318),
     (aux_sym_var_decls_token1, 320), (aux_sym_temp_var_decls_token1, 322),
     (aux_sym_external_var_decls_token1, 324), (aux_sym_global_var_decls_token1, 326),
     (aux_sym_fb_decl_token4, 1018), (aux_sym_method_decl_token1, 330),
     (aux_sym_prog_access_decls_token1, 332), (aux_sym_initial_step_token1, 334),
     (aux_sym_config_init_token1, 336), (aux_sym__stmt_token1, 340), (aux_sym__stmt_token2, 340),
     (aux_sym__stmt_token3, 340), (aux_sym_if_stmt_token1, 342), (aux_sym_case_stmt_token1, 344),
     (aux_sym_for_stmt_token1, 346), (aux_sym_while_stmt_token1, 348),
     (aux_sym_repeat_stmt_token1, 350), (aux_sym_raise_stmt_token1, 352),
     (aux_sym_try_stmt_token1, 354), (aux_sym_try_stmt_token2, 356),
     (aux_sym_catch_clause_token1, 356), (aux_sym_finally_clause_token1, 356), (sym_ld_rung, 358),
     (sym_fbd_network, 360), (sym_c_style_comment, 3), (sym_pascal_style_comment, 3),
     (sym_pragma, 3)]"

lemma ts_parse_row_344_scan: "row_scan tokens_63_2 0 ts_parse_row_344 = Some (Suc (Suc (Suc (Suc 0))))"
  unfolding ts_parse_row_344_def by simp

text \<open>Lines 94194 to 94306.\<close>

definition ts_parse_row_345 :: parse_row where
  "ts_parse_row_345 =
    [(sym_ERR_assign_func_call, 7530), (sym_ERR_unexpected_this_in_path, 2372),
     (sym_ERR_unexpected_super_in_path, 2372), (sym_ERR_fb_variables_after_method, 1971),
     (sym_ERR_var_access_not_allowed, 3160), (sym_ERR_var_config_not_allowed, 3160),
     (sym_ERR_var_global_not_allowed, 3160), (sym_ERR_method_decl_in_body, 3150),
     (sym_extern_pragma, 7490), (sym_wasm_pragma, 3150), (sym_warn_pragma, 7490),
     (sym_allow_pragma, 3140), (sym_test_pragma, 7490), (sym_once_pragma, 7490),
     (sym_must_call_pragma, 7490), (sym_export_pragma, 7490), (sym_pou_pragma, 7194),
     (sym_direct_variable, 7675), (sym_deref_expression, 2373), (sym_variable, 7599),
     (sym_var_access, 2373), (sym_in_out_decls, 3160), (sym_var_decls, 3160),
     (sym_retain_var_decls, 3160), (sym_temp_var_decls, 3160), (sym_external_var_decls, 3160),
     (sym_global_var_decls, 2947), (sym_loc_partly_var_decl, 3160), (sym__fb_variables, 2347),
     (sym_fb_input_decls, 3160), (sym_fb_output_decls, 3160), (sym_no_retain_var_decls, 3160),
     (sym_fb_body, 8337), (sym_method_decl, 490), (sym_prog_access_decls, 3043), (sym_SFC, 7970),
     (sym_SFC_network, 7612), (sym_initial_step, 7439), (sym_config_init, 3047),
     (sym_variable_access, 7530), (sym_func_call, 2961), (sym_stmt_list, 7970), (sym__stmt, 2024),
     (sym_assign, 3150), (sym_if_stmt, 3150), (sym_case_stmt, 3150), (sym_for_stmt, 3150),
     (sym_while_stmt, 3150), (sym_repeat_stmt, 3150), (sym_raise_stmt, 3150), (sym_try_stmt, 3150),
     (sym_ERR_clause_outside_try, 3150), (sym_begin_path_expression, 2943), (sym_invocation, 2934),
     (sym_any_invocation, 2935), (sym_this_invocation, 2641), (sym_super_invocation, 2641),
     (sym_super_body_invocation, 2935), (sym_path_expression, 2627), (sym_field_expression, 2373),
     (sym_index_expression, 2373), (sym_ladder_diagram, 7970), (sym_fb_diagram, 7970),
     (aux_sym_ERR_fb_variables_after_method_repeat1, 2347), (aux_sym_func_decl_repeat1, 7194),
     (aux_sym_fb_decl_repeat3, 490), (aux_sym_SFC_repeat1, 7612), (aux_sym_stmt_list_repeat1, 2024),
     (aux_sym_ladder_diagram_repeat1, 8009), (aux_sym_fb_diagram_repeat1, 8013),
     (sym_identifier, 298), (aux_sym_ERR_unexpected_this_in_path_token1, 304),
     (aux_sym_ERR_unexpected_super_in_path_token1, 306), (sym_line_comment, 3),
     (anon_sym_LBRACE, 308), (aux_sym_test_pragma_token1, 9), (aux_sym_once_pragma_token1, 11),
     (aux_sym_must_call_pragma_token1, 13), (aux_sym_export_pragma_token1, 15),
     (anon_sym_SEMI, 310), (anon_sym_PERCENT, 312), (aux_sym_input_decls_token1, 314),
     (aux_sym_output_decls_token1, 316), (aux_sym_in_out_decls_token1, 318),
     (aux_sym_var_decls_token1, 320), (aux_sym_temp_var_decls_token1, 322),
     (aux_sym_external_var_decls_token1, 324), (aux_sym_global_var_decls_token1, 326),
     (aux_sym_fb_decl_token4, 1020), (aux_sym_method_decl_token1, 330),
     (aux_sym_prog_access_decls_token1, 332), (aux_sym_initial_step_token1, 334),
     (aux_sym_config_init_token1, 336), (aux_sym__stmt_token1, 340), (aux_sym__stmt_token2, 340),
     (aux_sym__stmt_token3, 340), (aux_sym_if_stmt_token1, 342), (aux_sym_case_stmt_token1, 344),
     (aux_sym_for_stmt_token1, 346), (aux_sym_while_stmt_token1, 348),
     (aux_sym_repeat_stmt_token1, 350), (aux_sym_raise_stmt_token1, 352),
     (aux_sym_try_stmt_token1, 354), (aux_sym_try_stmt_token2, 356),
     (aux_sym_catch_clause_token1, 356), (aux_sym_finally_clause_token1, 356), (sym_ld_rung, 358),
     (sym_fbd_network, 360), (sym_c_style_comment, 3), (sym_pascal_style_comment, 3),
     (sym_pragma, 3)]"

lemma ts_parse_row_345_scan: "row_scan tokens_63_2 0 ts_parse_row_345 = Some (Suc (Suc (Suc (Suc 0))))"
  unfolding ts_parse_row_345_def by simp

text \<open>Lines 94307 to 94419.\<close>

definition ts_parse_row_346 :: parse_row where
  "ts_parse_row_346 =
    [(sym_ERR_assign_func_call, 7530), (sym_ERR_unexpected_this_in_path, 2372),
     (sym_ERR_unexpected_super_in_path, 2372), (sym_ERR_fb_variables_after_method, 1922),
     (sym_ERR_var_access_not_allowed, 3160), (sym_ERR_var_config_not_allowed, 3160),
     (sym_ERR_var_global_not_allowed, 3160), (sym_ERR_method_decl_in_body, 3150),
     (sym_extern_pragma, 7490), (sym_wasm_pragma, 3150), (sym_warn_pragma, 7490),
     (sym_allow_pragma, 3140), (sym_test_pragma, 7490), (sym_once_pragma, 7490),
     (sym_must_call_pragma, 7490), (sym_export_pragma, 7490), (sym_pou_pragma, 7194),
     (sym_direct_variable, 7675), (sym_deref_expression, 2373), (sym_variable, 7599),
     (sym_var_access, 2373), (sym_in_out_decls, 3160), (sym_var_decls, 3160),
     (sym_retain_var_decls, 3160), (sym_temp_var_decls, 3160), (sym_external_var_decls, 3160),
     (sym_global_var_decls, 2947), (sym_loc_partly_var_decl, 3160), (sym__fb_variables, 2343),
     (sym_fb_input_decls, 3160), (sym_fb_output_decls, 3160), (sym_no_retain_var_decls, 3160),
     (sym_fb_body, 9652), (sym_method_decl, 2549), (sym_prog_access_decls, 3043), (sym_SFC, 7970),
     (sym_SFC_network, 7612), (sym_initial_step, 7439), (sym_config_init, 3047),
     (sym_variable_access, 7530), (sym_func_call, 2961), (sym_stmt_list, 7970), (sym__stmt, 2024),
     (sym_assign, 3150), (sym_if_stmt, 3150), (sym_case_stmt, 3150), (sym_for_stmt, 3150),
     (sym_while_stmt, 3150), (sym_repeat_stmt, 3150), (sym_raise_stmt, 3150), (sym_try_stmt, 3150),
     (sym_ERR_clause_outside_try, 3150), (sym_begin_path_expression, 2943), (sym_invocation, 2934),
     (sym_any_invocation, 2935), (sym_this_invocation, 2641), (sym_super_invocation, 2641),
     (sym_super_body_invocation, 2935), (sym_path_expression, 2627), (sym_field_expression, 2373),
     (sym_index_expression, 2373), (sym_ladder_diagram, 7970), (sym_fb_diagram, 7970),
     (aux_sym_ERR_fb_variables_after_method_repeat1, 2343), (aux_sym_func_decl_repeat1, 7194),
     (aux_sym_fb_decl_repeat3, 2549), (aux_sym_SFC_repeat1, 7612),
     (aux_sym_stmt_list_repeat1, 2024), (aux_sym_ladder_diagram_repeat1, 8009),
     (aux_sym_fb_diagram_repeat1, 8013), (sym_identifier, 298),
     (aux_sym_ERR_unexpected_this_in_path_token1, 304),
     (aux_sym_ERR_unexpected_super_in_path_token1, 306), (sym_line_comment, 3),
     (anon_sym_LBRACE, 308), (aux_sym_test_pragma_token1, 9), (aux_sym_once_pragma_token1, 11),
     (aux_sym_must_call_pragma_token1, 13), (aux_sym_export_pragma_token1, 15),
     (anon_sym_SEMI, 310), (anon_sym_PERCENT, 312), (aux_sym_input_decls_token1, 314),
     (aux_sym_output_decls_token1, 316), (aux_sym_in_out_decls_token1, 318),
     (aux_sym_var_decls_token1, 320), (aux_sym_temp_var_decls_token1, 322),
     (aux_sym_external_var_decls_token1, 324), (aux_sym_global_var_decls_token1, 326),
     (aux_sym_fb_decl_token4, 1022), (aux_sym_method_decl_token1, 330),
     (aux_sym_prog_access_decls_token1, 332), (aux_sym_initial_step_token1, 334),
     (aux_sym_config_init_token1, 336), (aux_sym__stmt_token1, 340), (aux_sym__stmt_token2, 340),
     (aux_sym__stmt_token3, 340), (aux_sym_if_stmt_token1, 342), (aux_sym_case_stmt_token1, 344),
     (aux_sym_for_stmt_token1, 346), (aux_sym_while_stmt_token1, 348),
     (aux_sym_repeat_stmt_token1, 350), (aux_sym_raise_stmt_token1, 352),
     (aux_sym_try_stmt_token1, 354), (aux_sym_try_stmt_token2, 356),
     (aux_sym_catch_clause_token1, 356), (aux_sym_finally_clause_token1, 356), (sym_ld_rung, 358),
     (sym_fbd_network, 360), (sym_c_style_comment, 3), (sym_pascal_style_comment, 3),
     (sym_pragma, 3)]"

lemma ts_parse_row_346_scan: "row_scan tokens_63_2 0 ts_parse_row_346 = Some (Suc (Suc (Suc (Suc 0))))"
  unfolding ts_parse_row_346_def by simp

text \<open>Lines 94420 to 94532.\<close>

definition ts_parse_row_347 :: parse_row where
  "ts_parse_row_347 =
    [(sym_ERR_assign_func_call, 7530), (sym_ERR_unexpected_this_in_path, 2372),
     (sym_ERR_unexpected_super_in_path, 2372), (sym_ERR_fb_variables_after_method, 1975),
     (sym_ERR_var_access_not_allowed, 3160), (sym_ERR_var_config_not_allowed, 3160),
     (sym_ERR_var_global_not_allowed, 3160), (sym_ERR_method_decl_in_body, 3150),
     (sym_extern_pragma, 7490), (sym_wasm_pragma, 3150), (sym_warn_pragma, 7490),
     (sym_allow_pragma, 3140), (sym_test_pragma, 7490), (sym_once_pragma, 7490),
     (sym_must_call_pragma, 7490), (sym_export_pragma, 7490), (sym_pou_pragma, 7194),
     (sym_direct_variable, 7675), (sym_deref_expression, 2373), (sym_variable, 7599),
     (sym_var_access, 2373), (sym_in_out_decls, 3160), (sym_var_decls, 3160),
     (sym_retain_var_decls, 3160), (sym_temp_var_decls, 3160), (sym_external_var_decls, 3160),
     (sym_global_var_decls, 2947), (sym_loc_partly_var_decl, 3160), (sym__fb_variables, 2343),
     (sym_fb_input_decls, 3160), (sym_fb_output_decls, 3160), (sym_no_retain_var_decls, 3160),
     (sym_fb_body, 8352), (sym_method_decl, 2549), (sym_prog_access_decls, 3043), (sym_SFC, 7970),
     (sym_SFC_network, 7612), (sym_initial_step, 7439), (sym_config_init, 3047),
     (sym_variable_access, 7530), (sym_func_call, 2961), (sym_stmt_list, 7970), (sym__stmt, 2024),
     (sym_assign, 3150), (sym_if_stmt, 3150), (sym_case_stmt, 3150), (sym_for_stmt, 3150),
     (sym_while_stmt, 3150), (sym_repeat_stmt, 3150), (sym_raise_stmt, 3150), (sym_try_stmt, 3150),
     (sym_ERR_clause_outside_try, 3150), (sym_begin_path_expression, 2943), (sym_invocation, 2934),
     (sym_any_invocation, 2935), (sym_this_invocation, 2641), (sym_super_invocation, 2641),
     (sym_super_body_invocation, 2935), (sym_path_expression, 2627), (sym_field_expression, 2373),
     (sym_index_expression, 2373), (sym_ladder_diagram, 7970), (sym_fb_diagram, 7970),
     (aux_sym_ERR_fb_variables_after_method_repeat1, 2343), (aux_sym_func_decl_repeat1, 7194),
     (aux_sym_fb_decl_repeat3, 2549), (aux_sym_SFC_repeat1, 7612),
     (aux_sym_stmt_list_repeat1, 2024), (aux_sym_ladder_diagram_repeat1, 8009),
     (aux_sym_fb_diagram_repeat1, 8013), (sym_identifier, 298),
     (aux_sym_ERR_unexpected_this_in_path_token1, 304),
     (aux_sym_ERR_unexpected_super_in_path_token1, 306), (sym_line_comment, 3),
     (anon_sym_LBRACE, 308), (aux_sym_test_pragma_token1, 9), (aux_sym_once_pragma_token1, 11),
     (aux_sym_must_call_pragma_token1, 13), (aux_sym_export_pragma_token1, 15),
     (anon_sym_SEMI, 310), (anon_sym_PERCENT, 312), (aux_sym_input_decls_token1, 314),
     (aux_sym_output_decls_token1, 316), (aux_sym_in_out_decls_token1, 318),
     (aux_sym_var_decls_token1, 320), (aux_sym_temp_var_decls_token1, 322),
     (aux_sym_external_var_decls_token1, 324), (aux_sym_global_var_decls_token1, 326),
     (aux_sym_fb_decl_token4, 1024), (aux_sym_method_decl_token1, 330),
     (aux_sym_prog_access_decls_token1, 332), (aux_sym_initial_step_token1, 334),
     (aux_sym_config_init_token1, 336), (aux_sym__stmt_token1, 340), (aux_sym__stmt_token2, 340),
     (aux_sym__stmt_token3, 340), (aux_sym_if_stmt_token1, 342), (aux_sym_case_stmt_token1, 344),
     (aux_sym_for_stmt_token1, 346), (aux_sym_while_stmt_token1, 348),
     (aux_sym_repeat_stmt_token1, 350), (aux_sym_raise_stmt_token1, 352),
     (aux_sym_try_stmt_token1, 354), (aux_sym_try_stmt_token2, 356),
     (aux_sym_catch_clause_token1, 356), (aux_sym_finally_clause_token1, 356), (sym_ld_rung, 358),
     (sym_fbd_network, 360), (sym_c_style_comment, 3), (sym_pascal_style_comment, 3),
     (sym_pragma, 3)]"

lemma ts_parse_row_347_scan: "row_scan tokens_63_2 0 ts_parse_row_347 = Some (Suc (Suc (Suc (Suc 0))))"
  unfolding ts_parse_row_347_def by simp

text \<open>Lines 94533 to 94645.\<close>

definition ts_parse_row_348 :: parse_row where
  "ts_parse_row_348 =
    [(sym_ERR_assign_func_call, 7530), (sym_ERR_unexpected_this_in_path, 2372),
     (sym_ERR_unexpected_super_in_path, 2372), (sym_ERR_fb_variables_after_method, 1976),
     (sym_ERR_var_access_not_allowed, 3160), (sym_ERR_var_config_not_allowed, 3160),
     (sym_ERR_var_global_not_allowed, 3160), (sym_ERR_method_decl_in_body, 3150),
     (sym_extern_pragma, 7490), (sym_wasm_pragma, 3150), (sym_warn_pragma, 7490),
     (sym_allow_pragma, 3140), (sym_test_pragma, 7490), (sym_once_pragma, 7490),
     (sym_must_call_pragma, 7490), (sym_export_pragma, 7490), (sym_pou_pragma, 7194),
     (sym_direct_variable, 7675), (sym_deref_expression, 2373), (sym_variable, 7599),
     (sym_var_access, 2373), (sym_in_out_decls, 3160), (sym_var_decls, 3160),
     (sym_retain_var_decls, 3160), (sym_temp_var_decls, 3160), (sym_external_var_decls, 3160),
     (sym_global_var_decls, 2947), (sym_loc_partly_var_decl, 3160), (sym__fb_variables, 2343),
     (sym_fb_input_decls, 3160), (sym_fb_output_decls, 3160), (sym_no_retain_var_decls, 3160),
     (sym_fb_body, 8374), (sym_method_decl, 2549), (sym_prog_access_decls, 3043), (sym_SFC, 7970),
     (sym_SFC_network, 7612), (sym_initial_step, 7439), (sym_config_init, 3047),
     (sym_variable_access, 7530), (sym_func_call, 2961), (sym_stmt_list, 7970), (sym__stmt, 2024),
     (sym_assign, 3150), (sym_if_stmt, 3150), (sym_case_stmt, 3150), (sym_for_stmt, 3150),
     (sym_while_stmt, 3150), (sym_repeat_stmt, 3150), (sym_raise_stmt, 3150), (sym_try_stmt, 3150),
     (sym_ERR_clause_outside_try, 3150), (sym_begin_path_expression, 2943), (sym_invocation, 2934),
     (sym_any_invocation, 2935), (sym_this_invocation, 2641), (sym_super_invocation, 2641),
     (sym_super_body_invocation, 2935), (sym_path_expression, 2627), (sym_field_expression, 2373),
     (sym_index_expression, 2373), (sym_ladder_diagram, 7970), (sym_fb_diagram, 7970),
     (aux_sym_ERR_fb_variables_after_method_repeat1, 2343), (aux_sym_func_decl_repeat1, 7194),
     (aux_sym_fb_decl_repeat3, 2549), (aux_sym_SFC_repeat1, 7612),
     (aux_sym_stmt_list_repeat1, 2024), (aux_sym_ladder_diagram_repeat1, 8009),
     (aux_sym_fb_diagram_repeat1, 8013), (sym_identifier, 298),
     (aux_sym_ERR_unexpected_this_in_path_token1, 304),
     (aux_sym_ERR_unexpected_super_in_path_token1, 306), (sym_line_comment, 3),
     (anon_sym_LBRACE, 308), (aux_sym_test_pragma_token1, 9), (aux_sym_once_pragma_token1, 11),
     (aux_sym_must_call_pragma_token1, 13), (aux_sym_export_pragma_token1, 15),
     (anon_sym_SEMI, 310), (anon_sym_PERCENT, 312), (aux_sym_input_decls_token1, 314),
     (aux_sym_output_decls_token1, 316), (aux_sym_in_out_decls_token1, 318),
     (aux_sym_var_decls_token1, 320), (aux_sym_temp_var_decls_token1, 322),
     (aux_sym_external_var_decls_token1, 324), (aux_sym_global_var_decls_token1, 326),
     (aux_sym_fb_decl_token4, 1026), (aux_sym_method_decl_token1, 330),
     (aux_sym_prog_access_decls_token1, 332), (aux_sym_initial_step_token1, 334),
     (aux_sym_config_init_token1, 336), (aux_sym__stmt_token1, 340), (aux_sym__stmt_token2, 340),
     (aux_sym__stmt_token3, 340), (aux_sym_if_stmt_token1, 342), (aux_sym_case_stmt_token1, 344),
     (aux_sym_for_stmt_token1, 346), (aux_sym_while_stmt_token1, 348),
     (aux_sym_repeat_stmt_token1, 350), (aux_sym_raise_stmt_token1, 352),
     (aux_sym_try_stmt_token1, 354), (aux_sym_try_stmt_token2, 356),
     (aux_sym_catch_clause_token1, 356), (aux_sym_finally_clause_token1, 356), (sym_ld_rung, 358),
     (sym_fbd_network, 360), (sym_c_style_comment, 3), (sym_pascal_style_comment, 3),
     (sym_pragma, 3)]"

lemma ts_parse_row_348_scan: "row_scan tokens_63_2 0 ts_parse_row_348 = Some (Suc (Suc (Suc (Suc 0))))"
  unfolding ts_parse_row_348_def by simp

text \<open>Lines 94646 to 94758.\<close>

definition ts_parse_row_349 :: parse_row where
  "ts_parse_row_349 =
    [(sym_ERR_assign_func_call, 7530), (sym_ERR_unexpected_this_in_path, 2372),
     (sym_ERR_unexpected_super_in_path, 2372), (sym_ERR_fb_variables_after_method, 1977),
     (sym_ERR_var_access_not_allowed, 3160), (sym_ERR_var_config_not_allowed, 3160),
     (sym_ERR_var_global_not_allowed, 3160), (sym_ERR_method_decl_in_body, 3150),
     (sym_extern_pragma, 7490), (sym_wasm_pragma, 3150), (sym_warn_pragma, 7490),
     (sym_allow_pragma, 3140), (sym_test_pragma, 7490), (sym_once_pragma, 7490),
     (sym_must_call_pragma, 7490), (sym_export_pragma, 7490), (sym_pou_pragma, 7194),
     (sym_direct_variable, 7675), (sym_deref_expression, 2373), (sym_variable, 7599),
     (sym_var_access, 2373), (sym_in_out_decls, 3160), (sym_var_decls, 3160),
     (sym_retain_var_decls, 3160), (sym_temp_var_decls, 3160), (sym_external_var_decls, 3160),
     (sym_global_var_decls, 2947), (sym_loc_partly_var_decl, 3160), (sym__fb_variables, 2347),
     (sym_fb_input_decls, 3160), (sym_fb_output_decls, 3160), (sym_no_retain_var_decls, 3160),
     (sym_fb_body, 8384), (sym_method_decl, 493), (sym_prog_access_decls, 3043), (sym_SFC, 7970),
     (sym_SFC_network, 7612), (sym_initial_step, 7439), (sym_config_init, 3047),
     (sym_variable_access, 7530), (sym_func_call, 2961), (sym_stmt_list, 7970), (sym__stmt, 2024),
     (sym_assign, 3150), (sym_if_stmt, 3150), (sym_case_stmt, 3150), (sym_for_stmt, 3150),
     (sym_while_stmt, 3150), (sym_repeat_stmt, 3150), (sym_raise_stmt, 3150), (sym_try_stmt, 3150),
     (sym_ERR_clause_outside_try, 3150), (sym_begin_path_expression, 2943), (sym_invocation, 2934),
     (sym_any_invocation, 2935), (sym_this_invocation, 2641), (sym_super_invocation, 2641),
     (sym_super_body_invocation, 2935), (sym_path_expression, 2627), (sym_field_expression, 2373),
     (sym_index_expression, 2373), (sym_ladder_diagram, 7970), (sym_fb_diagram, 7970),
     (aux_sym_ERR_fb_variables_after_method_repeat1, 2347), (aux_sym_func_decl_repeat1, 7194),
     (aux_sym_fb_decl_repeat3, 493), (aux_sym_SFC_repeat1, 7612), (aux_sym_stmt_list_repeat1, 2024),
     (aux_sym_ladder_diagram_repeat1, 8009), (aux_sym_fb_diagram_repeat1, 8013),
     (sym_identifier, 298), (aux_sym_ERR_unexpected_this_in_path_token1, 304),
     (aux_sym_ERR_unexpected_super_in_path_token1, 306), (sym_line_comment, 3),
     (anon_sym_LBRACE, 308), (aux_sym_test_pragma_token1, 9), (aux_sym_once_pragma_token1, 11),
     (aux_sym_must_call_pragma_token1, 13), (aux_sym_export_pragma_token1, 15),
     (anon_sym_SEMI, 310), (anon_sym_PERCENT, 312), (aux_sym_input_decls_token1, 314),
     (aux_sym_output_decls_token1, 316), (aux_sym_in_out_decls_token1, 318),
     (aux_sym_var_decls_token1, 320), (aux_sym_temp_var_decls_token1, 322),
     (aux_sym_external_var_decls_token1, 324), (aux_sym_global_var_decls_token1, 326),
     (aux_sym_fb_decl_token4, 1028), (aux_sym_method_decl_token1, 330),
     (aux_sym_prog_access_decls_token1, 332), (aux_sym_initial_step_token1, 334),
     (aux_sym_config_init_token1, 336), (aux_sym__stmt_token1, 340), (aux_sym__stmt_token2, 340),
     (aux_sym__stmt_token3, 340), (aux_sym_if_stmt_token1, 342), (aux_sym_case_stmt_token1, 344),
     (aux_sym_for_stmt_token1, 346), (aux_sym_while_stmt_token1, 348),
     (aux_sym_repeat_stmt_token1, 350), (aux_sym_raise_stmt_token1, 352),
     (aux_sym_try_stmt_token1, 354), (aux_sym_try_stmt_token2, 356),
     (aux_sym_catch_clause_token1, 356), (aux_sym_finally_clause_token1, 356), (sym_ld_rung, 358),
     (sym_fbd_network, 360), (sym_c_style_comment, 3), (sym_pascal_style_comment, 3),
     (sym_pragma, 3)]"

lemma ts_parse_row_349_scan: "row_scan tokens_63_2 0 ts_parse_row_349 = Some (Suc (Suc (Suc (Suc 0))))"
  unfolding ts_parse_row_349_def by simp

text \<open>Lines 94759 to 94871.\<close>

definition ts_parse_row_350 :: parse_row where
  "ts_parse_row_350 =
    [(sym_ERR_assign_func_call, 7530), (sym_ERR_unexpected_this_in_path, 2372),
     (sym_ERR_unexpected_super_in_path, 2372), (sym_ERR_fb_variables_after_method, 1978),
     (sym_ERR_var_access_not_allowed, 3160), (sym_ERR_var_config_not_allowed, 3160),
     (sym_ERR_var_global_not_allowed, 3160), (sym_ERR_method_decl_in_body, 3150),
     (sym_extern_pragma, 7490), (sym_wasm_pragma, 3150), (sym_warn_pragma, 7490),
     (sym_allow_pragma, 3140), (sym_test_pragma, 7490), (sym_once_pragma, 7490),
     (sym_must_call_pragma, 7490), (sym_export_pragma, 7490), (sym_pou_pragma, 7194),
     (sym_direct_variable, 7675), (sym_deref_expression, 2373), (sym_variable, 7599),
     (sym_var_access, 2373), (sym_in_out_decls, 3160), (sym_var_decls, 3160),
     (sym_retain_var_decls, 3160), (sym_temp_var_decls, 3160), (sym_external_var_decls, 3160),
     (sym_global_var_decls, 2947), (sym_loc_partly_var_decl, 3160), (sym__fb_variables, 2343),
     (sym_fb_input_decls, 3160), (sym_fb_output_decls, 3160), (sym_no_retain_var_decls, 3160),
     (sym_fb_body, 8393), (sym_method_decl, 2549), (sym_prog_access_decls, 3043), (sym_SFC, 7970),
     (sym_SFC_network, 7612), (sym_initial_step, 7439), (sym_config_init, 3047),
     (sym_variable_access, 7530), (sym_func_call, 2961), (sym_stmt_list, 7970), (sym__stmt, 2024),
     (sym_assign, 3150), (sym_if_stmt, 3150), (sym_case_stmt, 3150), (sym_for_stmt, 3150),
     (sym_while_stmt, 3150), (sym_repeat_stmt, 3150), (sym_raise_stmt, 3150), (sym_try_stmt, 3150),
     (sym_ERR_clause_outside_try, 3150), (sym_begin_path_expression, 2943), (sym_invocation, 2934),
     (sym_any_invocation, 2935), (sym_this_invocation, 2641), (sym_super_invocation, 2641),
     (sym_super_body_invocation, 2935), (sym_path_expression, 2627), (sym_field_expression, 2373),
     (sym_index_expression, 2373), (sym_ladder_diagram, 7970), (sym_fb_diagram, 7970),
     (aux_sym_ERR_fb_variables_after_method_repeat1, 2343), (aux_sym_func_decl_repeat1, 7194),
     (aux_sym_fb_decl_repeat3, 2549), (aux_sym_SFC_repeat1, 7612),
     (aux_sym_stmt_list_repeat1, 2024), (aux_sym_ladder_diagram_repeat1, 8009),
     (aux_sym_fb_diagram_repeat1, 8013), (sym_identifier, 298),
     (aux_sym_ERR_unexpected_this_in_path_token1, 304),
     (aux_sym_ERR_unexpected_super_in_path_token1, 306), (sym_line_comment, 3),
     (anon_sym_LBRACE, 308), (aux_sym_test_pragma_token1, 9), (aux_sym_once_pragma_token1, 11),
     (aux_sym_must_call_pragma_token1, 13), (aux_sym_export_pragma_token1, 15),
     (anon_sym_SEMI, 310), (anon_sym_PERCENT, 312), (aux_sym_input_decls_token1, 314),
     (aux_sym_output_decls_token1, 316), (aux_sym_in_out_decls_token1, 318),
     (aux_sym_var_decls_token1, 320), (aux_sym_temp_var_decls_token1, 322),
     (aux_sym_external_var_decls_token1, 324), (aux_sym_global_var_decls_token1, 326),
     (aux_sym_fb_decl_token4, 1030), (aux_sym_method_decl_token1, 330),
     (aux_sym_prog_access_decls_token1, 332), (aux_sym_initial_step_token1, 334),
     (aux_sym_config_init_token1, 336), (aux_sym__stmt_token1, 340), (aux_sym__stmt_token2, 340),
     (aux_sym__stmt_token3, 340), (aux_sym_if_stmt_token1, 342), (aux_sym_case_stmt_token1, 344),
     (aux_sym_for_stmt_token1, 346), (aux_sym_while_stmt_token1, 348),
     (aux_sym_repeat_stmt_token1, 350), (aux_sym_raise_stmt_token1, 352),
     (aux_sym_try_stmt_token1, 354), (aux_sym_try_stmt_token2, 356),
     (aux_sym_catch_clause_token1, 356), (aux_sym_finally_clause_token1, 356), (sym_ld_rung, 358),
     (sym_fbd_network, 360), (sym_c_style_comment, 3), (sym_pascal_style_comment, 3),
     (sym_pragma, 3)]"

lemma ts_parse_row_350_scan: "row_scan tokens_63_2 0 ts_parse_row_350 = Some (Suc (Suc (Suc (Suc 0))))"
  unfolding ts_parse_row_350_def by simp

text \<open>Lines 94872 to 94984.\<close>

definition ts_parse_row_351 :: parse_row where
  "ts_parse_row_351 =
    [(sym_ERR_assign_func_call, 7530), (sym_ERR_unexpected_this_in_path, 2372),
     (sym_ERR_unexpected_super_in_path, 2372), (sym_ERR_fb_variables_after_method, 1979),
     (sym_ERR_var_access_not_allowed, 3160), (sym_ERR_var_config_not_allowed, 3160),
     (sym_ERR_var_global_not_allowed, 3160), (sym_ERR_method_decl_in_body, 3150),
     (sym_extern_pragma, 7490), (sym_wasm_pragma, 3150), (sym_warn_pragma, 7490),
     (sym_allow_pragma, 3140), (sym_test_pragma, 7490), (sym_once_pragma, 7490),
     (sym_must_call_pragma, 7490), (sym_export_pragma, 7490), (sym_pou_pragma, 7194),
     (sym_direct_variable, 7675), (sym_deref_expression, 2373), (sym_variable, 7599),
     (sym_var_access, 2373), (sym_in_out_decls, 3160), (sym_var_decls, 3160),
     (sym_retain_var_decls, 3160), (sym_temp_var_decls, 3160), (sym_external_var_decls, 3160),
     (sym_global_var_decls, 2947), (sym_loc_partly_var_decl, 3160), (sym__fb_variables, 2347),
     (sym_fb_input_decls, 3160), (sym_fb_output_decls, 3160), (sym_no_retain_var_decls, 3160),
     (sym_fb_body, 8402), (sym_method_decl, 494), (sym_prog_access_decls, 3043), (sym_SFC, 7970),
     (sym_SFC_network, 7612), (sym_initial_step, 7439), (sym_config_init, 3047),
     (sym_variable_access, 7530), (sym_func_call, 2961), (sym_stmt_list, 7970), (sym__stmt, 2024),
     (sym_assign, 3150), (sym_if_stmt, 3150), (sym_case_stmt, 3150), (sym_for_stmt, 3150),
     (sym_while_stmt, 3150), (sym_repeat_stmt, 3150), (sym_raise_stmt, 3150), (sym_try_stmt, 3150),
     (sym_ERR_clause_outside_try, 3150), (sym_begin_path_expression, 2943), (sym_invocation, 2934),
     (sym_any_invocation, 2935), (sym_this_invocation, 2641), (sym_super_invocation, 2641),
     (sym_super_body_invocation, 2935), (sym_path_expression, 2627), (sym_field_expression, 2373),
     (sym_index_expression, 2373), (sym_ladder_diagram, 7970), (sym_fb_diagram, 7970),
     (aux_sym_ERR_fb_variables_after_method_repeat1, 2347), (aux_sym_func_decl_repeat1, 7194),
     (aux_sym_fb_decl_repeat3, 494), (aux_sym_SFC_repeat1, 7612), (aux_sym_stmt_list_repeat1, 2024),
     (aux_sym_ladder_diagram_repeat1, 8009), (aux_sym_fb_diagram_repeat1, 8013),
     (sym_identifier, 298), (aux_sym_ERR_unexpected_this_in_path_token1, 304),
     (aux_sym_ERR_unexpected_super_in_path_token1, 306), (sym_line_comment, 3),
     (anon_sym_LBRACE, 308), (aux_sym_test_pragma_token1, 9), (aux_sym_once_pragma_token1, 11),
     (aux_sym_must_call_pragma_token1, 13), (aux_sym_export_pragma_token1, 15),
     (anon_sym_SEMI, 310), (anon_sym_PERCENT, 312), (aux_sym_input_decls_token1, 314),
     (aux_sym_output_decls_token1, 316), (aux_sym_in_out_decls_token1, 318),
     (aux_sym_var_decls_token1, 320), (aux_sym_temp_var_decls_token1, 322),
     (aux_sym_external_var_decls_token1, 324), (aux_sym_global_var_decls_token1, 326),
     (aux_sym_fb_decl_token4, 1032), (aux_sym_method_decl_token1, 330),
     (aux_sym_prog_access_decls_token1, 332), (aux_sym_initial_step_token1, 334),
     (aux_sym_config_init_token1, 336), (aux_sym__stmt_token1, 340), (aux_sym__stmt_token2, 340),
     (aux_sym__stmt_token3, 340), (aux_sym_if_stmt_token1, 342), (aux_sym_case_stmt_token1, 344),
     (aux_sym_for_stmt_token1, 346), (aux_sym_while_stmt_token1, 348),
     (aux_sym_repeat_stmt_token1, 350), (aux_sym_raise_stmt_token1, 352),
     (aux_sym_try_stmt_token1, 354), (aux_sym_try_stmt_token2, 356),
     (aux_sym_catch_clause_token1, 356), (aux_sym_finally_clause_token1, 356), (sym_ld_rung, 358),
     (sym_fbd_network, 360), (sym_c_style_comment, 3), (sym_pascal_style_comment, 3),
     (sym_pragma, 3)]"

lemma ts_parse_row_351_scan: "row_scan tokens_63_2 0 ts_parse_row_351 = Some (Suc (Suc (Suc (Suc 0))))"
  unfolding ts_parse_row_351_def by simp

text \<open>Lines 94985 to 95097.\<close>

definition ts_parse_row_352 :: parse_row where
  "ts_parse_row_352 =
    [(sym_ERR_assign_func_call, 7530), (sym_ERR_unexpected_this_in_path, 2372),
     (sym_ERR_unexpected_super_in_path, 2372), (sym_ERR_fb_variables_after_method, 1413),
     (sym_ERR_var_access_not_allowed, 3160), (sym_ERR_var_config_not_allowed, 3160),
     (sym_ERR_var_global_not_allowed, 3160), (sym_ERR_method_decl_in_body, 3150),
     (sym_extern_pragma, 7490), (sym_wasm_pragma, 3150), (sym_warn_pragma, 7490),
     (sym_allow_pragma, 3140), (sym_test_pragma, 7490), (sym_once_pragma, 7490),
     (sym_must_call_pragma, 7490), (sym_export_pragma, 7490), (sym_pou_pragma, 7194),
     (sym_direct_variable, 7675), (sym_deref_expression, 2373), (sym_variable, 7599),
     (sym_var_access, 2373), (sym_in_out_decls, 3160), (sym_var_decls, 3160),
     (sym_retain_var_decls, 3160), (sym_temp_var_decls, 3160), (sym_external_var_decls, 3160),
     (sym_global_var_decls, 2947), (sym_loc_partly_var_decl, 3160), (sym__fb_variables, 2343),
     (sym_fb_input_decls, 3160), (sym_fb_output_decls, 3160), (sym_no_retain_var_decls, 3160),
     (sym_fb_body, 10075), (sym_method_decl, 2549), (sym_prog_access_decls, 3043), (sym_SFC, 7970),
     (sym_SFC_network, 7612), (sym_initial_step, 7439), (sym_config_init, 3047),
     (sym_variable_access, 7530), (sym_func_call, 2961), (sym_stmt_list, 7970), (sym__stmt, 2024),
     (sym_assign, 3150), (sym_if_stmt, 3150), (sym_case_stmt, 3150), (sym_for_stmt, 3150),
     (sym_while_stmt, 3150), (sym_repeat_stmt, 3150), (sym_raise_stmt, 3150), (sym_try_stmt, 3150),
     (sym_ERR_clause_outside_try, 3150), (sym_begin_path_expression, 2943), (sym_invocation, 2934),
     (sym_any_invocation, 2935), (sym_this_invocation, 2641), (sym_super_invocation, 2641),
     (sym_super_body_invocation, 2935), (sym_path_expression, 2627), (sym_field_expression, 2373),
     (sym_index_expression, 2373), (sym_ladder_diagram, 7970), (sym_fb_diagram, 7970),
     (aux_sym_ERR_fb_variables_after_method_repeat1, 2343), (aux_sym_func_decl_repeat1, 7194),
     (aux_sym_fb_decl_repeat3, 2549), (aux_sym_SFC_repeat1, 7612),
     (aux_sym_stmt_list_repeat1, 2024), (aux_sym_ladder_diagram_repeat1, 8009),
     (aux_sym_fb_diagram_repeat1, 8013), (sym_identifier, 298),
     (aux_sym_ERR_unexpected_this_in_path_token1, 304),
     (aux_sym_ERR_unexpected_super_in_path_token1, 306), (sym_line_comment, 3),
     (anon_sym_LBRACE, 308), (aux_sym_test_pragma_token1, 9), (aux_sym_once_pragma_token1, 11),
     (aux_sym_must_call_pragma_token1, 13), (aux_sym_export_pragma_token1, 15),
     (anon_sym_SEMI, 310), (anon_sym_PERCENT, 312), (aux_sym_input_decls_token1, 314),
     (aux_sym_output_decls_token1, 316), (aux_sym_in_out_decls_token1, 318),
     (aux_sym_var_decls_token1, 320), (aux_sym_temp_var_decls_token1, 322),
     (aux_sym_external_var_decls_token1, 324), (aux_sym_global_var_decls_token1, 326),
     (aux_sym_fb_decl_token4, 1034), (aux_sym_method_decl_token1, 330),
     (aux_sym_prog_access_decls_token1, 332), (aux_sym_initial_step_token1, 334),
     (aux_sym_config_init_token1, 336), (aux_sym__stmt_token1, 340), (aux_sym__stmt_token2, 340),
     (aux_sym__stmt_token3, 340), (aux_sym_if_stmt_token1, 342), (aux_sym_case_stmt_token1, 344),
     (aux_sym_for_stmt_token1, 346), (aux_sym_while_stmt_token1, 348),
     (aux_sym_repeat_stmt_token1, 350), (aux_sym_raise_stmt_token1, 352),
     (aux_sym_try_stmt_token1, 354), (aux_sym_try_stmt_token2, 356),
     (aux_sym_catch_clause_token1, 356), (aux_sym_finally_clause_token1, 356), (sym_ld_rung, 358),
     (sym_fbd_network, 360), (sym_c_style_comment, 3), (sym_pascal_style_comment, 3),
     (sym_pragma, 3)]"

lemma ts_parse_row_352_scan: "row_scan tokens_63_2 0 ts_parse_row_352 = Some (Suc (Suc (Suc (Suc 0))))"
  unfolding ts_parse_row_352_def by simp

text \<open>Lines 95098 to 95210.\<close>

definition ts_parse_row_353 :: parse_row where
  "ts_parse_row_353 =
    [(sym_ERR_assign_func_call, 7530), (sym_ERR_unexpected_this_in_path, 2372),
     (sym_ERR_unexpected_super_in_path, 2372), (sym_ERR_fb_variables_after_method, 1982),
     (sym_ERR_var_access_not_allowed, 3160), (sym_ERR_var_config_not_allowed, 3160),
     (sym_ERR_var_global_not_allowed, 3160), (sym_ERR_method_decl_in_body, 3150),
     (sym_extern_pragma, 7490), (sym_wasm_pragma, 3150), (sym_warn_pragma, 7490),
     (sym_allow_pragma, 3140), (sym_test_pragma, 7490), (sym_once_pragma, 7490),
     (sym_must_call_pragma, 7490), (sym_export_pragma, 7490), (sym_pou_pragma, 7194),
     (sym_direct_variable, 7675), (sym_deref_expression, 2373), (sym_variable, 7599),
     (sym_var_access, 2373), (sym_in_out_decls, 3160), (sym_var_decls, 3160),
     (sym_retain_var_decls, 3160), (sym_temp_var_decls, 3160), (sym_external_var_decls, 3160),
     (sym_global_var_decls, 2947), (sym_loc_partly_var_decl, 3160), (sym__fb_variables, 2343),
     (sym_fb_input_decls, 3160), (sym_fb_output_decls, 3160), (sym_no_retain_var_decls, 3160),
     (sym_fb_body, 8416), (sym_method_decl, 2549), (sym_prog_access_decls, 3043), (sym_SFC, 7970),
     (sym_SFC_network, 7612), (sym_initial_step, 7439), (sym_config_init, 3047),
     (sym_variable_access, 7530), (sym_func_call, 2961), (sym_stmt_list, 7970), (sym__stmt, 2024),
     (sym_assign, 3150), (sym_if_stmt, 3150), (sym_case_stmt, 3150), (sym_for_stmt, 3150),
     (sym_while_stmt, 3150), (sym_repeat_stmt, 3150), (sym_raise_stmt, 3150), (sym_try_stmt, 3150),
     (sym_ERR_clause_outside_try, 3150), (sym_begin_path_expression, 2943), (sym_invocation, 2934),
     (sym_any_invocation, 2935), (sym_this_invocation, 2641), (sym_super_invocation, 2641),
     (sym_super_body_invocation, 2935), (sym_path_expression, 2627), (sym_field_expression, 2373),
     (sym_index_expression, 2373), (sym_ladder_diagram, 7970), (sym_fb_diagram, 7970),
     (aux_sym_ERR_fb_variables_after_method_repeat1, 2343), (aux_sym_func_decl_repeat1, 7194),
     (aux_sym_fb_decl_repeat3, 2549), (aux_sym_SFC_repeat1, 7612),
     (aux_sym_stmt_list_repeat1, 2024), (aux_sym_ladder_diagram_repeat1, 8009),
     (aux_sym_fb_diagram_repeat1, 8013), (sym_identifier, 298),
     (aux_sym_ERR_unexpected_this_in_path_token1, 304),
     (aux_sym_ERR_unexpected_super_in_path_token1, 306), (sym_line_comment, 3),
     (anon_sym_LBRACE, 308), (aux_sym_test_pragma_token1, 9), (aux_sym_once_pragma_token1, 11),
     (aux_sym_must_call_pragma_token1, 13), (aux_sym_export_pragma_token1, 15),
     (anon_sym_SEMI, 310), (anon_sym_PERCENT, 312), (aux_sym_input_decls_token1, 314),
     (aux_sym_output_decls_token1, 316), (aux_sym_in_out_decls_token1, 318),
     (aux_sym_var_decls_token1, 320), (aux_sym_temp_var_decls_token1, 322),
     (aux_sym_external_var_decls_token1, 324), (aux_sym_global_var_decls_token1, 326),
     (aux_sym_fb_decl_token4, 1036), (aux_sym_method_decl_token1, 330),
     (aux_sym_prog_access_decls_token1, 332), (aux_sym_initial_step_token1, 334),
     (aux_sym_config_init_token1, 336), (aux_sym__stmt_token1, 340), (aux_sym__stmt_token2, 340),
     (aux_sym__stmt_token3, 340), (aux_sym_if_stmt_token1, 342), (aux_sym_case_stmt_token1, 344),
     (aux_sym_for_stmt_token1, 346), (aux_sym_while_stmt_token1, 348),
     (aux_sym_repeat_stmt_token1, 350), (aux_sym_raise_stmt_token1, 352),
     (aux_sym_try_stmt_token1, 354), (aux_sym_try_stmt_token2, 356),
     (aux_sym_catch_clause_token1, 356), (aux_sym_finally_clause_token1, 356), (sym_ld_rung, 358),
     (sym_fbd_network, 360), (sym_c_style_comment, 3), (sym_pascal_style_comment, 3),
     (sym_pragma, 3)]"

lemma ts_parse_row_353_scan: "row_scan tokens_63_2 0 ts_parse_row_353 = Some (Suc (Suc (Suc (Suc 0))))"
  unfolding ts_parse_row_353_def by simp

text \<open>Lines 95211 to 95323.\<close>

definition ts_parse_row_354 :: parse_row where
  "ts_parse_row_354 =
    [(sym_ERR_assign_func_call, 7530), (sym_ERR_unexpected_this_in_path, 2372),
     (sym_ERR_unexpected_super_in_path, 2372), (sym_ERR_fb_variables_after_method, 1418),
     (sym_ERR_var_access_not_allowed, 3160), (sym_ERR_var_config_not_allowed, 3160),
     (sym_ERR_var_global_not_allowed, 3160), (sym_ERR_method_decl_in_body, 3150),
     (sym_extern_pragma, 7490), (sym_wasm_pragma, 3150), (sym_warn_pragma, 7490),
     (sym_allow_pragma, 3140), (sym_test_pragma, 7490), (sym_once_pragma, 7490),
     (sym_must_call_pragma, 7490), (sym_export_pragma, 7490), (sym_pou_pragma, 7194),
     (sym_direct_variable, 7675), (sym_deref_expression, 2373), (sym_variable, 7599),
     (sym_var_access, 2373), (sym_in_out_decls, 3160), (sym_var_decls, 3160),
     (sym_retain_var_decls, 3160), (sym_temp_var_decls, 3160), (sym_external_var_decls, 3160),
     (sym_global_var_decls, 2947), (sym_loc_partly_var_decl, 3160), (sym__fb_variables, 2347),
     (sym_fb_input_decls, 3160), (sym_fb_output_decls, 3160), (sym_no_retain_var_decls, 3160),
     (sym_fb_body, 10116), (sym_method_decl, 878), (sym_prog_access_decls, 3043), (sym_SFC, 7970),
     (sym_SFC_network, 7612), (sym_initial_step, 7439), (sym_config_init, 3047),
     (sym_variable_access, 7530), (sym_func_call, 2961), (sym_stmt_list, 7970), (sym__stmt, 2024),
     (sym_assign, 3150), (sym_if_stmt, 3150), (sym_case_stmt, 3150), (sym_for_stmt, 3150),
     (sym_while_stmt, 3150), (sym_repeat_stmt, 3150), (sym_raise_stmt, 3150), (sym_try_stmt, 3150),
     (sym_ERR_clause_outside_try, 3150), (sym_begin_path_expression, 2943), (sym_invocation, 2934),
     (sym_any_invocation, 2935), (sym_this_invocation, 2641), (sym_super_invocation, 2641),
     (sym_super_body_invocation, 2935), (sym_path_expression, 2627), (sym_field_expression, 2373),
     (sym_index_expression, 2373), (sym_ladder_diagram, 7970), (sym_fb_diagram, 7970),
     (aux_sym_ERR_fb_variables_after_method_repeat1, 2347), (aux_sym_func_decl_repeat1, 7194),
     (aux_sym_fb_decl_repeat3, 878), (aux_sym_SFC_repeat1, 7612), (aux_sym_stmt_list_repeat1, 2024),
     (aux_sym_ladder_diagram_repeat1, 8009), (aux_sym_fb_diagram_repeat1, 8013),
     (sym_identifier, 298), (aux_sym_ERR_unexpected_this_in_path_token1, 304),
     (aux_sym_ERR_unexpected_super_in_path_token1, 306), (sym_line_comment, 3),
     (anon_sym_LBRACE, 308), (aux_sym_test_pragma_token1, 9), (aux_sym_once_pragma_token1, 11),
     (aux_sym_must_call_pragma_token1, 13), (aux_sym_export_pragma_token1, 15),
     (anon_sym_SEMI, 310), (anon_sym_PERCENT, 312), (aux_sym_input_decls_token1, 314),
     (aux_sym_output_decls_token1, 316), (aux_sym_in_out_decls_token1, 318),
     (aux_sym_var_decls_token1, 320), (aux_sym_temp_var_decls_token1, 322),
     (aux_sym_external_var_decls_token1, 324), (aux_sym_global_var_decls_token1, 326),
     (aux_sym_fb_decl_token4, 1038), (aux_sym_method_decl_token1, 330),
     (aux_sym_prog_access_decls_token1, 332), (aux_sym_initial_step_token1, 334),
     (aux_sym_config_init_token1, 336), (aux_sym__stmt_token1, 340), (aux_sym__stmt_token2, 340),
     (aux_sym__stmt_token3, 340), (aux_sym_if_stmt_token1, 342), (aux_sym_case_stmt_token1, 344),
     (aux_sym_for_stmt_token1, 346), (aux_sym_while_stmt_token1, 348),
     (aux_sym_repeat_stmt_token1, 350), (aux_sym_raise_stmt_token1, 352),
     (aux_sym_try_stmt_token1, 354), (aux_sym_try_stmt_token2, 356),
     (aux_sym_catch_clause_token1, 356), (aux_sym_finally_clause_token1, 356), (sym_ld_rung, 358),
     (sym_fbd_network, 360), (sym_c_style_comment, 3), (sym_pascal_style_comment, 3),
     (sym_pragma, 3)]"

lemma ts_parse_row_354_scan: "row_scan tokens_63_2 0 ts_parse_row_354 = Some (Suc (Suc (Suc (Suc 0))))"
  unfolding ts_parse_row_354_def by simp

text \<open>Lines 95324 to 95436.\<close>

definition ts_parse_row_355 :: parse_row where
  "ts_parse_row_355 =
    [(sym_ERR_assign_func_call, 7530), (sym_ERR_unexpected_this_in_path, 2372),
     (sym_ERR_unexpected_super_in_path, 2372), (sym_ERR_fb_variables_after_method, 1986),
     (sym_ERR_var_access_not_allowed, 3160), (sym_ERR_var_config_not_allowed, 3160),
     (sym_ERR_var_global_not_allowed, 3160), (sym_ERR_method_decl_in_body, 3150),
     (sym_extern_pragma, 7490), (sym_wasm_pragma, 3150), (sym_warn_pragma, 7490),
     (sym_allow_pragma, 3140), (sym_test_pragma, 7490), (sym_once_pragma, 7490),
     (sym_must_call_pragma, 7490), (sym_export_pragma, 7490), (sym_pou_pragma, 7194),
     (sym_direct_variable, 7675), (sym_deref_expression, 2373), (sym_variable, 7599),
     (sym_var_access, 2373), (sym_in_out_decls, 3160), (sym_var_decls, 3160),
     (sym_retain_var_decls, 3160), (sym_temp_var_decls, 3160), (sym_external_var_decls, 3160),
     (sym_global_var_decls, 2947), (sym_loc_partly_var_decl, 3160), (sym__fb_variables, 2343),
     (sym_fb_input_decls, 3160), (sym_fb_output_decls, 3160), (sym_no_retain_var_decls, 3160),
     (sym_fb_body, 8449), (sym_method_decl, 2549), (sym_prog_access_decls, 3043), (sym_SFC, 7970),
     (sym_SFC_network, 7612), (sym_initial_step, 7439), (sym_config_init, 3047),
     (sym_variable_access, 7530), (sym_func_call, 2961), (sym_stmt_list, 7970), (sym__stmt, 2024),
     (sym_assign, 3150), (sym_if_stmt, 3150), (sym_case_stmt, 3150), (sym_for_stmt, 3150),
     (sym_while_stmt, 3150), (sym_repeat_stmt, 3150), (sym_raise_stmt, 3150), (sym_try_stmt, 3150),
     (sym_ERR_clause_outside_try, 3150), (sym_begin_path_expression, 2943), (sym_invocation, 2934),
     (sym_any_invocation, 2935), (sym_this_invocation, 2641), (sym_super_invocation, 2641),
     (sym_super_body_invocation, 2935), (sym_path_expression, 2627), (sym_field_expression, 2373),
     (sym_index_expression, 2373), (sym_ladder_diagram, 7970), (sym_fb_diagram, 7970),
     (aux_sym_ERR_fb_variables_after_method_repeat1, 2343), (aux_sym_func_decl_repeat1, 7194),
     (aux_sym_fb_decl_repeat3, 2549), (aux_sym_SFC_repeat1, 7612),
     (aux_sym_stmt_list_repeat1, 2024), (aux_sym_ladder_diagram_repeat1, 8009),
     (aux_sym_fb_diagram_repeat1, 8013), (sym_identifier, 298),
     (aux_sym_ERR_unexpected_this_in_path_token1, 304),
     (aux_sym_ERR_unexpected_super_in_path_token1, 306), (sym_line_comment, 3),
     (anon_sym_LBRACE, 308), (aux_sym_test_pragma_token1, 9), (aux_sym_once_pragma_token1, 11),
     (aux_sym_must_call_pragma_token1, 13), (aux_sym_export_pragma_token1, 15),
     (anon_sym_SEMI, 310), (anon_sym_PERCENT, 312), (aux_sym_input_decls_token1, 314),
     (aux_sym_output_decls_token1, 316), (aux_sym_in_out_decls_token1, 318),
     (aux_sym_var_decls_token1, 320), (aux_sym_temp_var_decls_token1, 322),
     (aux_sym_external_var_decls_token1, 324), (aux_sym_global_var_decls_token1, 326),
     (aux_sym_fb_decl_token4, 1040), (aux_sym_method_decl_token1, 330),
     (aux_sym_prog_access_decls_token1, 332), (aux_sym_initial_step_token1, 334),
     (aux_sym_config_init_token1, 336), (aux_sym__stmt_token1, 340), (aux_sym__stmt_token2, 340),
     (aux_sym__stmt_token3, 340), (aux_sym_if_stmt_token1, 342), (aux_sym_case_stmt_token1, 344),
     (aux_sym_for_stmt_token1, 346), (aux_sym_while_stmt_token1, 348),
     (aux_sym_repeat_stmt_token1, 350), (aux_sym_raise_stmt_token1, 352),
     (aux_sym_try_stmt_token1, 354), (aux_sym_try_stmt_token2, 356),
     (aux_sym_catch_clause_token1, 356), (aux_sym_finally_clause_token1, 356), (sym_ld_rung, 358),
     (sym_fbd_network, 360), (sym_c_style_comment, 3), (sym_pascal_style_comment, 3),
     (sym_pragma, 3)]"

lemma ts_parse_row_355_scan: "row_scan tokens_63_2 0 ts_parse_row_355 = Some (Suc (Suc (Suc (Suc 0))))"
  unfolding ts_parse_row_355_def by simp

text \<open>Lines 95437 to 95549.\<close>

definition ts_parse_row_356 :: parse_row where
  "ts_parse_row_356 =
    [(sym_ERR_assign_func_call, 7530), (sym_ERR_unexpected_this_in_path, 2372),
     (sym_ERR_unexpected_super_in_path, 2372), (sym_ERR_fb_variables_after_method, 1987),
     (sym_ERR_var_access_not_allowed, 3160), (sym_ERR_var_config_not_allowed, 3160),
     (sym_ERR_var_global_not_allowed, 3160), (sym_ERR_method_decl_in_body, 3150),
     (sym_extern_pragma, 7490), (sym_wasm_pragma, 3150), (sym_warn_pragma, 7490),
     (sym_allow_pragma, 3140), (sym_test_pragma, 7490), (sym_once_pragma, 7490),
     (sym_must_call_pragma, 7490), (sym_export_pragma, 7490), (sym_pou_pragma, 7194),
     (sym_direct_variable, 7675), (sym_deref_expression, 2373), (sym_variable, 7599),
     (sym_var_access, 2373), (sym_in_out_decls, 3160), (sym_var_decls, 3160),
     (sym_retain_var_decls, 3160), (sym_temp_var_decls, 3160), (sym_external_var_decls, 3160),
     (sym_global_var_decls, 2947), (sym_loc_partly_var_decl, 3160), (sym__fb_variables, 2347),
     (sym_fb_input_decls, 3160), (sym_fb_output_decls, 3160), (sym_no_retain_var_decls, 3160),
     (sym_fb_body, 8460), (sym_method_decl, 501), (sym_prog_access_decls, 3043), (sym_SFC, 7970),
     (sym_SFC_network, 7612), (sym_initial_step, 7439), (sym_config_init, 3047),
     (sym_variable_access, 7530), (sym_func_call, 2961), (sym_stmt_list, 7970), (sym__stmt, 2024),
     (sym_assign, 3150), (sym_if_stmt, 3150), (sym_case_stmt, 3150), (sym_for_stmt, 3150),
     (sym_while_stmt, 3150), (sym_repeat_stmt, 3150), (sym_raise_stmt, 3150), (sym_try_stmt, 3150),
     (sym_ERR_clause_outside_try, 3150), (sym_begin_path_expression, 2943), (sym_invocation, 2934),
     (sym_any_invocation, 2935), (sym_this_invocation, 2641), (sym_super_invocation, 2641),
     (sym_super_body_invocation, 2935), (sym_path_expression, 2627), (sym_field_expression, 2373),
     (sym_index_expression, 2373), (sym_ladder_diagram, 7970), (sym_fb_diagram, 7970),
     (aux_sym_ERR_fb_variables_after_method_repeat1, 2347), (aux_sym_func_decl_repeat1, 7194),
     (aux_sym_fb_decl_repeat3, 501), (aux_sym_SFC_repeat1, 7612), (aux_sym_stmt_list_repeat1, 2024),
     (aux_sym_ladder_diagram_repeat1, 8009), (aux_sym_fb_diagram_repeat1, 8013),
     (sym_identifier, 298), (aux_sym_ERR_unexpected_this_in_path_token1, 304),
     (aux_sym_ERR_unexpected_super_in_path_token1, 306), (sym_line_comment, 3),
     (anon_sym_LBRACE, 308), (aux_sym_test_pragma_token1, 9), (aux_sym_once_pragma_token1, 11),
     (aux_sym_must_call_pragma_token1, 13), (aux_sym_export_pragma_token1, 15),
     (anon_sym_SEMI, 310), (anon_sym_PERCENT, 312), (aux_sym_input_decls_token1, 314),
     (aux_sym_output_decls_token1, 316), (aux_sym_in_out_decls_token1, 318),
     (aux_sym_var_decls_token1, 320), (aux_sym_temp_var_decls_token1, 322),
     (aux_sym_external_var_decls_token1, 324), (aux_sym_global_var_decls_token1, 326),
     (aux_sym_fb_decl_token4, 1042), (aux_sym_method_decl_token1, 330),
     (aux_sym_prog_access_decls_token1, 332), (aux_sym_initial_step_token1, 334),
     (aux_sym_config_init_token1, 336), (aux_sym__stmt_token1, 340), (aux_sym__stmt_token2, 340),
     (aux_sym__stmt_token3, 340), (aux_sym_if_stmt_token1, 342), (aux_sym_case_stmt_token1, 344),
     (aux_sym_for_stmt_token1, 346), (aux_sym_while_stmt_token1, 348),
     (aux_sym_repeat_stmt_token1, 350), (aux_sym_raise_stmt_token1, 352),
     (aux_sym_try_stmt_token1, 354), (aux_sym_try_stmt_token2, 356),
     (aux_sym_catch_clause_token1, 356), (aux_sym_finally_clause_token1, 356), (sym_ld_rung, 358),
     (sym_fbd_network, 360), (sym_c_style_comment, 3), (sym_pascal_style_comment, 3),
     (sym_pragma, 3)]"

lemma ts_parse_row_356_scan: "row_scan tokens_63_2 0 ts_parse_row_356 = Some (Suc (Suc (Suc (Suc 0))))"
  unfolding ts_parse_row_356_def by simp

text \<open>Lines 95550 to 95662.\<close>

definition ts_parse_row_357 :: parse_row where
  "ts_parse_row_357 =
    [(sym_ERR_assign_func_call, 7530), (sym_ERR_unexpected_this_in_path, 2372),
     (sym_ERR_unexpected_super_in_path, 2372), (sym_ERR_fb_variables_after_method, 1988),
     (sym_ERR_var_access_not_allowed, 3160), (sym_ERR_var_config_not_allowed, 3160),
     (sym_ERR_var_global_not_allowed, 3160), (sym_ERR_method_decl_in_body, 3150),
     (sym_extern_pragma, 7490), (sym_wasm_pragma, 3150), (sym_warn_pragma, 7490),
     (sym_allow_pragma, 3140), (sym_test_pragma, 7490), (sym_once_pragma, 7490),
     (sym_must_call_pragma, 7490), (sym_export_pragma, 7490), (sym_pou_pragma, 7194),
     (sym_direct_variable, 7675), (sym_deref_expression, 2373), (sym_variable, 7599),
     (sym_var_access, 2373), (sym_in_out_decls, 3160), (sym_var_decls, 3160),
     (sym_retain_var_decls, 3160), (sym_temp_var_decls, 3160), (sym_external_var_decls, 3160),
     (sym_global_var_decls, 2947), (sym_loc_partly_var_decl, 3160), (sym__fb_variables, 2343),
     (sym_fb_input_decls, 3160), (sym_fb_output_decls, 3160), (sym_no_retain_var_decls, 3160),
     (sym_fb_body, 8469), (sym_method_decl, 2549), (sym_prog_access_decls, 3043), (sym_SFC, 7970),
     (sym_SFC_network, 7612), (sym_initial_step, 7439), (sym_config_init, 3047),
     (sym_variable_access, 7530), (sym_func_call, 2961), (sym_stmt_list, 7970), (sym__stmt, 2024),
     (sym_assign, 3150), (sym_if_stmt, 3150), (sym_case_stmt, 3150), (sym_for_stmt, 3150),
     (sym_while_stmt, 3150), (sym_repeat_stmt, 3150), (sym_raise_stmt, 3150), (sym_try_stmt, 3150),
     (sym_ERR_clause_outside_try, 3150), (sym_begin_path_expression, 2943), (sym_invocation, 2934),
     (sym_any_invocation, 2935), (sym_this_invocation, 2641), (sym_super_invocation, 2641),
     (sym_super_body_invocation, 2935), (sym_path_expression, 2627), (sym_field_expression, 2373),
     (sym_index_expression, 2373), (sym_ladder_diagram, 7970), (sym_fb_diagram, 7970),
     (aux_sym_ERR_fb_variables_after_method_repeat1, 2343), (aux_sym_func_decl_repeat1, 7194),
     (aux_sym_fb_decl_repeat3, 2549), (aux_sym_SFC_repeat1, 7612),
     (aux_sym_stmt_list_repeat1, 2024), (aux_sym_ladder_diagram_repeat1, 8009),
     (aux_sym_fb_diagram_repeat1, 8013), (sym_identifier, 298),
     (aux_sym_ERR_unexpected_this_in_path_token1, 304),
     (aux_sym_ERR_unexpected_super_in_path_token1, 306), (sym_line_comment, 3),
     (anon_sym_LBRACE, 308), (aux_sym_test_pragma_token1, 9), (aux_sym_once_pragma_token1, 11),
     (aux_sym_must_call_pragma_token1, 13), (aux_sym_export_pragma_token1, 15),
     (anon_sym_SEMI, 310), (anon_sym_PERCENT, 312), (aux_sym_input_decls_token1, 314),
     (aux_sym_output_decls_token1, 316), (aux_sym_in_out_decls_token1, 318),
     (aux_sym_var_decls_token1, 320), (aux_sym_temp_var_decls_token1, 322),
     (aux_sym_external_var_decls_token1, 324), (aux_sym_global_var_decls_token1, 326),
     (aux_sym_fb_decl_token4, 1044), (aux_sym_method_decl_token1, 330),
     (aux_sym_prog_access_decls_token1, 332), (aux_sym_initial_step_token1, 334),
     (aux_sym_config_init_token1, 336), (aux_sym__stmt_token1, 340), (aux_sym__stmt_token2, 340),
     (aux_sym__stmt_token3, 340), (aux_sym_if_stmt_token1, 342), (aux_sym_case_stmt_token1, 344),
     (aux_sym_for_stmt_token1, 346), (aux_sym_while_stmt_token1, 348),
     (aux_sym_repeat_stmt_token1, 350), (aux_sym_raise_stmt_token1, 352),
     (aux_sym_try_stmt_token1, 354), (aux_sym_try_stmt_token2, 356),
     (aux_sym_catch_clause_token1, 356), (aux_sym_finally_clause_token1, 356), (sym_ld_rung, 358),
     (sym_fbd_network, 360), (sym_c_style_comment, 3), (sym_pascal_style_comment, 3),
     (sym_pragma, 3)]"

lemma ts_parse_row_357_scan: "row_scan tokens_63_2 0 ts_parse_row_357 = Some (Suc (Suc (Suc (Suc 0))))"
  unfolding ts_parse_row_357_def by simp

text \<open>Lines 95663 to 95775.\<close>

definition ts_parse_row_358 :: parse_row where
  "ts_parse_row_358 =
    [(sym_ERR_assign_func_call, 7530), (sym_ERR_unexpected_this_in_path, 2372),
     (sym_ERR_unexpected_super_in_path, 2372), (sym_ERR_fb_variables_after_method, 1990),
     (sym_ERR_var_access_not_allowed, 3160), (sym_ERR_var_config_not_allowed, 3160),
     (sym_ERR_var_global_not_allowed, 3160), (sym_ERR_method_decl_in_body, 3150),
     (sym_extern_pragma, 7490), (sym_wasm_pragma, 3150), (sym_warn_pragma, 7490),
     (sym_allow_pragma, 3140), (sym_test_pragma, 7490), (sym_once_pragma, 7490),
     (sym_must_call_pragma, 7490), (sym_export_pragma, 7490), (sym_pou_pragma, 7194),
     (sym_direct_variable, 7675), (sym_deref_expression, 2373), (sym_variable, 7599),
     (sym_var_access, 2373), (sym_in_out_decls, 3160), (sym_var_decls, 3160),
     (sym_retain_var_decls, 3160), (sym_temp_var_decls, 3160), (sym_external_var_decls, 3160),
     (sym_global_var_decls, 2947), (sym_loc_partly_var_decl, 3160), (sym__fb_variables, 2347),
     (sym_fb_input_decls, 3160), (sym_fb_output_decls, 3160), (sym_no_retain_var_decls, 3160),
     (sym_fb_body, 8479), (sym_method_decl, 503), (sym_prog_access_decls, 3043), (sym_SFC, 7970),
     (sym_SFC_network, 7612), (sym_initial_step, 7439), (sym_config_init, 3047),
     (sym_variable_access, 7530), (sym_func_call, 2961), (sym_stmt_list, 7970), (sym__stmt, 2024),
     (sym_assign, 3150), (sym_if_stmt, 3150), (sym_case_stmt, 3150), (sym_for_stmt, 3150),
     (sym_while_stmt, 3150), (sym_repeat_stmt, 3150), (sym_raise_stmt, 3150), (sym_try_stmt, 3150),
     (sym_ERR_clause_outside_try, 3150), (sym_begin_path_expression, 2943), (sym_invocation, 2934),
     (sym_any_invocation, 2935), (sym_this_invocation, 2641), (sym_super_invocation, 2641),
     (sym_super_body_invocation, 2935), (sym_path_expression, 2627), (sym_field_expression, 2373),
     (sym_index_expression, 2373), (sym_ladder_diagram, 7970), (sym_fb_diagram, 7970),
     (aux_sym_ERR_fb_variables_after_method_repeat1, 2347), (aux_sym_func_decl_repeat1, 7194),
     (aux_sym_fb_decl_repeat3, 503), (aux_sym_SFC_repeat1, 7612), (aux_sym_stmt_list_repeat1, 2024),
     (aux_sym_ladder_diagram_repeat1, 8009), (aux_sym_fb_diagram_repeat1, 8013),
     (sym_identifier, 298), (aux_sym_ERR_unexpected_this_in_path_token1, 304),
     (aux_sym_ERR_unexpected_super_in_path_token1, 306), (sym_line_comment, 3),
     (anon_sym_LBRACE, 308), (aux_sym_test_pragma_token1, 9), (aux_sym_once_pragma_token1, 11),
     (aux_sym_must_call_pragma_token1, 13), (aux_sym_export_pragma_token1, 15),
     (anon_sym_SEMI, 310), (anon_sym_PERCENT, 312), (aux_sym_input_decls_token1, 314),
     (aux_sym_output_decls_token1, 316), (aux_sym_in_out_decls_token1, 318),
     (aux_sym_var_decls_token1, 320), (aux_sym_temp_var_decls_token1, 322),
     (aux_sym_external_var_decls_token1, 324), (aux_sym_global_var_decls_token1, 326),
     (aux_sym_fb_decl_token4, 1046), (aux_sym_method_decl_token1, 330),
     (aux_sym_prog_access_decls_token1, 332), (aux_sym_initial_step_token1, 334),
     (aux_sym_config_init_token1, 336), (aux_sym__stmt_token1, 340), (aux_sym__stmt_token2, 340),
     (aux_sym__stmt_token3, 340), (aux_sym_if_stmt_token1, 342), (aux_sym_case_stmt_token1, 344),
     (aux_sym_for_stmt_token1, 346), (aux_sym_while_stmt_token1, 348),
     (aux_sym_repeat_stmt_token1, 350), (aux_sym_raise_stmt_token1, 352),
     (aux_sym_try_stmt_token1, 354), (aux_sym_try_stmt_token2, 356),
     (aux_sym_catch_clause_token1, 356), (aux_sym_finally_clause_token1, 356), (sym_ld_rung, 358),
     (sym_fbd_network, 360), (sym_c_style_comment, 3), (sym_pascal_style_comment, 3),
     (sym_pragma, 3)]"

lemma ts_parse_row_358_scan: "row_scan tokens_63_2 0 ts_parse_row_358 = Some (Suc (Suc (Suc (Suc 0))))"
  unfolding ts_parse_row_358_def by simp

text \<open>Lines 95776 to 95888.\<close>

definition ts_parse_row_359 :: parse_row where
  "ts_parse_row_359 =
    [(sym_ERR_assign_func_call, 7530), (sym_ERR_unexpected_this_in_path, 2372),
     (sym_ERR_unexpected_super_in_path, 2372), (sym_ERR_fb_variables_after_method, 1950),
     (sym_ERR_var_access_not_allowed, 3160), (sym_ERR_var_config_not_allowed, 3160),
     (sym_ERR_var_global_not_allowed, 3160), (sym_ERR_method_decl_in_body, 3150),
     (sym_extern_pragma, 7490), (sym_wasm_pragma, 3150), (sym_warn_pragma, 7490),
     (sym_allow_pragma, 3140), (sym_test_pragma, 7490), (sym_once_pragma, 7490),
     (sym_must_call_pragma, 7490), (sym_export_pragma, 7490), (sym_pou_pragma, 7194),
     (sym_direct_variable, 7675), (sym_deref_expression, 2373), (sym_variable, 7599),
     (sym_var_access, 2373), (sym_in_out_decls, 3160), (sym_var_decls, 3160),
     (sym_retain_var_decls, 3160), (sym_temp_var_decls, 3160), (sym_external_var_decls, 3160),
     (sym_global_var_decls, 2947), (sym_loc_partly_var_decl, 3160), (sym__fb_variables, 2343),
     (sym_fb_input_decls, 3160), (sym_fb_output_decls, 3160), (sym_no_retain_var_decls, 3160),
     (sym_fb_body, 8882), (sym_method_decl, 2549), (sym_prog_access_decls, 3043), (sym_SFC, 7970),
     (sym_SFC_network, 7612), (sym_initial_step, 7439), (sym_config_init, 3047),
     (sym_variable_access, 7530), (sym_func_call, 2961), (sym_stmt_list, 7970), (sym__stmt, 2024),
     (sym_assign, 3150), (sym_if_stmt, 3150), (sym_case_stmt, 3150), (sym_for_stmt, 3150),
     (sym_while_stmt, 3150), (sym_repeat_stmt, 3150), (sym_raise_stmt, 3150), (sym_try_stmt, 3150),
     (sym_ERR_clause_outside_try, 3150), (sym_begin_path_expression, 2943), (sym_invocation, 2934),
     (sym_any_invocation, 2935), (sym_this_invocation, 2641), (sym_super_invocation, 2641),
     (sym_super_body_invocation, 2935), (sym_path_expression, 2627), (sym_field_expression, 2373),
     (sym_index_expression, 2373), (sym_ladder_diagram, 7970), (sym_fb_diagram, 7970),
     (aux_sym_ERR_fb_variables_after_method_repeat1, 2343), (aux_sym_func_decl_repeat1, 7194),
     (aux_sym_fb_decl_repeat3, 2549), (aux_sym_SFC_repeat1, 7612),
     (aux_sym_stmt_list_repeat1, 2024), (aux_sym_ladder_diagram_repeat1, 8009),
     (aux_sym_fb_diagram_repeat1, 8013), (sym_identifier, 298),
     (aux_sym_ERR_unexpected_this_in_path_token1, 304),
     (aux_sym_ERR_unexpected_super_in_path_token1, 306), (sym_line_comment, 3),
     (anon_sym_LBRACE, 308), (aux_sym_test_pragma_token1, 9), (aux_sym_once_pragma_token1, 11),
     (aux_sym_must_call_pragma_token1, 13), (aux_sym_export_pragma_token1, 15),
     (anon_sym_SEMI, 310), (anon_sym_PERCENT, 312), (aux_sym_input_decls_token1, 314),
     (aux_sym_output_decls_token1, 316), (aux_sym_in_out_decls_token1, 318),
     (aux_sym_var_decls_token1, 320), (aux_sym_temp_var_decls_token1, 322),
     (aux_sym_external_var_decls_token1, 324), (aux_sym_global_var_decls_token1, 326),
     (aux_sym_fb_decl_token4, 1048), (aux_sym_method_decl_token1, 330),
     (aux_sym_prog_access_decls_token1, 332), (aux_sym_initial_step_token1, 334),
     (aux_sym_config_init_token1, 336), (aux_sym__stmt_token1, 340), (aux_sym__stmt_token2, 340),
     (aux_sym__stmt_token3, 340), (aux_sym_if_stmt_token1, 342), (aux_sym_case_stmt_token1, 344),
     (aux_sym_for_stmt_token1, 346), (aux_sym_while_stmt_token1, 348),
     (aux_sym_repeat_stmt_token1, 350), (aux_sym_raise_stmt_token1, 352),
     (aux_sym_try_stmt_token1, 354), (aux_sym_try_stmt_token2, 356),
     (aux_sym_catch_clause_token1, 356), (aux_sym_finally_clause_token1, 356), (sym_ld_rung, 358),
     (sym_fbd_network, 360), (sym_c_style_comment, 3), (sym_pascal_style_comment, 3),
     (sym_pragma, 3)]"

lemma ts_parse_row_359_scan: "row_scan tokens_63_2 0 ts_parse_row_359 = Some (Suc (Suc (Suc (Suc 0))))"
  unfolding ts_parse_row_359_def by simp

text \<open>Lines 95889 to 96001.\<close>

definition ts_parse_row_360 :: parse_row where
  "ts_parse_row_360 =
    [(sym_ERR_assign_func_call, 7530), (sym_ERR_unexpected_this_in_path, 2372),
     (sym_ERR_unexpected_super_in_path, 2372), (sym_ERR_fb_variables_after_method, 1556),
     (sym_ERR_var_access_not_allowed, 3160), (sym_ERR_var_config_not_allowed, 3160),
     (sym_ERR_var_global_not_allowed, 3160), (sym_ERR_method_decl_in_body, 3150),
     (sym_extern_pragma, 7490), (sym_wasm_pragma, 3150), (sym_warn_pragma, 7490),
     (sym_allow_pragma, 3140), (sym_test_pragma, 7490), (sym_once_pragma, 7490),
     (sym_must_call_pragma, 7490), (sym_export_pragma, 7490), (sym_pou_pragma, 7194),
     (sym_direct_variable, 7675), (sym_deref_expression, 2373), (sym_variable, 7599),
     (sym_var_access, 2373), (sym_in_out_decls, 3160), (sym_var_decls, 3160),
     (sym_retain_var_decls, 3160), (sym_temp_var_decls, 3160), (sym_external_var_decls, 3160),
     (sym_global_var_decls, 2947), (sym_loc_partly_var_decl, 3160), (sym__fb_variables, 2343),
     (sym_fb_input_decls, 3160), (sym_fb_output_decls, 3160), (sym_no_retain_var_decls, 3160),
     (sym_fb_body, 10521), (sym_method_decl, 2549), (sym_prog_access_decls, 3043), (sym_SFC, 7970),
     (sym_SFC_network, 7612), (sym_initial_step, 7439), (sym_config_init, 3047),
     (sym_variable_access, 7530), (sym_func_call, 2961), (sym_stmt_list, 7970), (sym__stmt, 2024),
     (sym_assign, 3150), (sym_if_stmt, 3150), (sym_case_stmt, 3150), (sym_for_stmt, 3150),
     (sym_while_stmt, 3150), (sym_repeat_stmt, 3150), (sym_raise_stmt, 3150), (sym_try_stmt, 3150),
     (sym_ERR_clause_outside_try, 3150), (sym_begin_path_expression, 2943), (sym_invocation, 2934),
     (sym_any_invocation, 2935), (sym_this_invocation, 2641), (sym_super_invocation, 2641),
     (sym_super_body_invocation, 2935), (sym_path_expression, 2627), (sym_field_expression, 2373),
     (sym_index_expression, 2373), (sym_ladder_diagram, 7970), (sym_fb_diagram, 7970),
     (aux_sym_ERR_fb_variables_after_method_repeat1, 2343), (aux_sym_func_decl_repeat1, 7194),
     (aux_sym_fb_decl_repeat3, 2549), (aux_sym_SFC_repeat1, 7612),
     (aux_sym_stmt_list_repeat1, 2024), (aux_sym_ladder_diagram_repeat1, 8009),
     (aux_sym_fb_diagram_repeat1, 8013), (sym_identifier, 298),
     (aux_sym_ERR_unexpected_this_in_path_token1, 304),
     (aux_sym_ERR_unexpected_super_in_path_token1, 306), (sym_line_comment, 3),
     (anon_sym_LBRACE, 308), (aux_sym_test_pragma_token1, 9), (aux_sym_once_pragma_token1, 11),
     (aux_sym_must_call_pragma_token1, 13), (aux_sym_export_pragma_token1, 15),
     (anon_sym_SEMI, 310), (anon_sym_PERCENT, 312), (aux_sym_input_decls_token1, 314),
     (aux_sym_output_decls_token1, 316), (aux_sym_in_out_decls_token1, 318),
     (aux_sym_var_decls_token1, 320), (aux_sym_temp_var_decls_token1, 322),
     (aux_sym_external_var_decls_token1, 324), (aux_sym_global_var_decls_token1, 326),
     (aux_sym_fb_decl_token4, 1050), (aux_sym_method_decl_token1, 330),
     (aux_sym_prog_access_decls_token1, 332), (aux_sym_initial_step_token1, 334),
     (aux_sym_config_init_token1, 336), (aux_sym__stmt_token1, 340), (aux_sym__stmt_token2, 340),
     (aux_sym__stmt_token3, 340), (aux_sym_if_stmt_token1, 342), (aux_sym_case_stmt_token1, 344),
     (aux_sym_for_stmt_token1, 346), (aux_sym_while_stmt_token1, 348),
     (aux_sym_repeat_stmt_token1, 350), (aux_sym_raise_stmt_token1, 352),
     (aux_sym_try_stmt_token1, 354), (aux_sym_try_stmt_token2, 356),
     (aux_sym_catch_clause_token1, 356), (aux_sym_finally_clause_token1, 356), (sym_ld_rung, 358),
     (sym_fbd_network, 360), (sym_c_style_comment, 3), (sym_pascal_style_comment, 3),
     (sym_pragma, 3)]"

lemma ts_parse_row_360_scan: "row_scan tokens_63_2 0 ts_parse_row_360 = Some (Suc (Suc (Suc (Suc 0))))"
  unfolding ts_parse_row_360_def by simp

text \<open>Lines 96002 to 96114.\<close>

definition ts_parse_row_361 :: parse_row where
  "ts_parse_row_361 =
    [(sym_ERR_assign_func_call, 7530), (sym_ERR_unexpected_this_in_path, 2372),
     (sym_ERR_unexpected_super_in_path, 2372), (sym_ERR_fb_variables_after_method, 1997),
     (sym_ERR_var_access_not_allowed, 3160), (sym_ERR_var_config_not_allowed, 3160),
     (sym_ERR_var_global_not_allowed, 3160), (sym_ERR_method_decl_in_body, 3150),
     (sym_extern_pragma, 7490), (sym_wasm_pragma, 3150), (sym_warn_pragma, 7490),
     (sym_allow_pragma, 3140), (sym_test_pragma, 7490), (sym_once_pragma, 7490),
     (sym_must_call_pragma, 7490), (sym_export_pragma, 7490), (sym_pou_pragma, 7194),
     (sym_direct_variable, 7675), (sym_deref_expression, 2373), (sym_variable, 7599),
     (sym_var_access, 2373), (sym_in_out_decls, 3160), (sym_var_decls, 3160),
     (sym_retain_var_decls, 3160), (sym_temp_var_decls, 3160), (sym_external_var_decls, 3160),
     (sym_global_var_decls, 2947), (sym_loc_partly_var_decl, 3160), (sym__fb_variables, 2343),
     (sym_fb_input_decls, 3160), (sym_fb_output_decls, 3160), (sym_no_retain_var_decls, 3160),
     (sym_fb_body, 8504), (sym_method_decl, 2549), (sym_prog_access_decls, 3043), (sym_SFC, 7970),
     (sym_SFC_network, 7612), (sym_initial_step, 7439), (sym_config_init, 3047),
     (sym_variable_access, 7530), (sym_func_call, 2961), (sym_stmt_list, 7970), (sym__stmt, 2024),
     (sym_assign, 3150), (sym_if_stmt, 3150), (sym_case_stmt, 3150), (sym_for_stmt, 3150),
     (sym_while_stmt, 3150), (sym_repeat_stmt, 3150), (sym_raise_stmt, 3150), (sym_try_stmt, 3150),
     (sym_ERR_clause_outside_try, 3150), (sym_begin_path_expression, 2943), (sym_invocation, 2934),
     (sym_any_invocation, 2935), (sym_this_invocation, 2641), (sym_super_invocation, 2641),
     (sym_super_body_invocation, 2935), (sym_path_expression, 2627), (sym_field_expression, 2373),
     (sym_index_expression, 2373), (sym_ladder_diagram, 7970), (sym_fb_diagram, 7970),
     (aux_sym_ERR_fb_variables_after_method_repeat1, 2343), (aux_sym_func_decl_repeat1, 7194),
     (aux_sym_fb_decl_repeat3, 2549), (aux_sym_SFC_repeat1, 7612),
     (aux_sym_stmt_list_repeat1, 2024), (aux_sym_ladder_diagram_repeat1, 8009),
     (aux_sym_fb_diagram_repeat1, 8013), (sym_identifier, 298),
     (aux_sym_ERR_unexpected_this_in_path_token1, 304),
     (aux_sym_ERR_unexpected_super_in_path_token1, 306), (sym_line_comment, 3),
     (anon_sym_LBRACE, 308), (aux_sym_test_pragma_token1, 9), (aux_sym_once_pragma_token1, 11),
     (aux_sym_must_call_pragma_token1, 13), (aux_sym_export_pragma_token1, 15),
     (anon_sym_SEMI, 310), (anon_sym_PERCENT, 312), (aux_sym_input_decls_token1, 314),
     (aux_sym_output_decls_token1, 316), (aux_sym_in_out_decls_token1, 318),
     (aux_sym_var_decls_token1, 320), (aux_sym_temp_var_decls_token1, 322),
     (aux_sym_external_var_decls_token1, 324), (aux_sym_global_var_decls_token1, 326),
     (aux_sym_fb_decl_token4, 1052), (aux_sym_method_decl_token1, 330),
     (aux_sym_prog_access_decls_token1, 332), (aux_sym_initial_step_token1, 334),
     (aux_sym_config_init_token1, 336), (aux_sym__stmt_token1, 340), (aux_sym__stmt_token2, 340),
     (aux_sym__stmt_token3, 340), (aux_sym_if_stmt_token1, 342), (aux_sym_case_stmt_token1, 344),
     (aux_sym_for_stmt_token1, 346), (aux_sym_while_stmt_token1, 348),
     (aux_sym_repeat_stmt_token1, 350), (aux_sym_raise_stmt_token1, 352),
     (aux_sym_try_stmt_token1, 354), (aux_sym_try_stmt_token2, 356),
     (aux_sym_catch_clause_token1, 356), (aux_sym_finally_clause_token1, 356), (sym_ld_rung, 358),
     (sym_fbd_network, 360), (sym_c_style_comment, 3), (sym_pascal_style_comment, 3),
     (sym_pragma, 3)]"

lemma ts_parse_row_361_scan: "row_scan tokens_63_2 0 ts_parse_row_361 = Some (Suc (Suc (Suc (Suc 0))))"
  unfolding ts_parse_row_361_def by simp

text \<open>Lines 96115 to 96227.\<close>

definition ts_parse_row_362 :: parse_row where
  "ts_parse_row_362 =
    [(sym_ERR_assign_func_call, 7530), (sym_ERR_unexpected_this_in_path, 2372),
     (sym_ERR_unexpected_super_in_path, 2372), (sym_ERR_fb_variables_after_method, 1767),
     (sym_ERR_var_access_not_allowed, 3160), (sym_ERR_var_config_not_allowed, 3160),
     (sym_ERR_var_global_not_allowed, 3160), (sym_ERR_method_decl_in_body, 3150),
     (sym_extern_pragma, 7490), (sym_wasm_pragma, 3150), (sym_warn_pragma, 7490),
     (sym_allow_pragma, 3140), (sym_test_pragma, 7490), (sym_once_pragma, 7490),
     (sym_must_call_pragma, 7490), (sym_export_pragma, 7490), (sym_pou_pragma, 7194),
     (sym_direct_variable, 7675), (sym_deref_expression, 2373), (sym_variable, 7599),
     (sym_var_access, 2373), (sym_in_out_decls, 3160), (sym_var_decls, 3160),
     (sym_retain_var_decls, 3160), (sym_temp_var_decls, 3160), (sym_external_var_decls, 3160),
     (sym_global_var_decls, 2947), (sym_loc_partly_var_decl, 3160), (sym__fb_variables, 2347),
     (sym_fb_input_decls, 3160), (sym_fb_output_decls, 3160), (sym_no_retain_var_decls, 3160),
     (sym_fb_body, 8529), (sym_method_decl, 509), (sym_prog_access_decls, 3043), (sym_SFC, 7970),
     (sym_SFC_network, 7612), (sym_initial_step, 7439), (sym_config_init, 3047),
     (sym_variable_access, 7530), (sym_func_call, 2961), (sym_stmt_list, 7970), (sym__stmt, 2024),
     (sym_assign, 3150), (sym_if_stmt, 3150), (sym_case_stmt, 3150), (sym_for_stmt, 3150),
     (sym_while_stmt, 3150), (sym_repeat_stmt, 3150), (sym_raise_stmt, 3150), (sym_try_stmt, 3150),
     (sym_ERR_clause_outside_try, 3150), (sym_begin_path_expression, 2943), (sym_invocation, 2934),
     (sym_any_invocation, 2935), (sym_this_invocation, 2641), (sym_super_invocation, 2641),
     (sym_super_body_invocation, 2935), (sym_path_expression, 2627), (sym_field_expression, 2373),
     (sym_index_expression, 2373), (sym_ladder_diagram, 7970), (sym_fb_diagram, 7970),
     (aux_sym_ERR_fb_variables_after_method_repeat1, 2347), (aux_sym_func_decl_repeat1, 7194),
     (aux_sym_fb_decl_repeat3, 509), (aux_sym_SFC_repeat1, 7612), (aux_sym_stmt_list_repeat1, 2024),
     (aux_sym_ladder_diagram_repeat1, 8009), (aux_sym_fb_diagram_repeat1, 8013),
     (sym_identifier, 298), (aux_sym_ERR_unexpected_this_in_path_token1, 304),
     (aux_sym_ERR_unexpected_super_in_path_token1, 306), (sym_line_comment, 3),
     (anon_sym_LBRACE, 308), (aux_sym_test_pragma_token1, 9), (aux_sym_once_pragma_token1, 11),
     (aux_sym_must_call_pragma_token1, 13), (aux_sym_export_pragma_token1, 15),
     (anon_sym_SEMI, 310), (anon_sym_PERCENT, 312), (aux_sym_input_decls_token1, 314),
     (aux_sym_output_decls_token1, 316), (aux_sym_in_out_decls_token1, 318),
     (aux_sym_var_decls_token1, 320), (aux_sym_temp_var_decls_token1, 322),
     (aux_sym_external_var_decls_token1, 324), (aux_sym_global_var_decls_token1, 326),
     (aux_sym_fb_decl_token4, 1054), (aux_sym_method_decl_token1, 330),
     (aux_sym_prog_access_decls_token1, 332), (aux_sym_initial_step_token1, 334),
     (aux_sym_config_init_token1, 336), (aux_sym__stmt_token1, 340), (aux_sym__stmt_token2, 340),
     (aux_sym__stmt_token3, 340), (aux_sym_if_stmt_token1, 342), (aux_sym_case_stmt_token1, 344),
     (aux_sym_for_stmt_token1, 346), (aux_sym_while_stmt_token1, 348),
     (aux_sym_repeat_stmt_token1, 350), (aux_sym_raise_stmt_token1, 352),
     (aux_sym_try_stmt_token1, 354), (aux_sym_try_stmt_token2, 356),
     (aux_sym_catch_clause_token1, 356), (aux_sym_finally_clause_token1, 356), (sym_ld_rung, 358),
     (sym_fbd_network, 360), (sym_c_style_comment, 3), (sym_pascal_style_comment, 3),
     (sym_pragma, 3)]"

lemma ts_parse_row_362_scan: "row_scan tokens_63_2 0 ts_parse_row_362 = Some (Suc (Suc (Suc (Suc 0))))"
  unfolding ts_parse_row_362_def by simp

text \<open>Lines 96228 to 96340.\<close>

definition ts_parse_row_363 :: parse_row where
  "ts_parse_row_363 =
    [(sym_ERR_assign_func_call, 7530), (sym_ERR_unexpected_this_in_path, 2372),
     (sym_ERR_unexpected_super_in_path, 2372), (sym_ERR_fb_variables_after_method, 1886),
     (sym_ERR_var_access_not_allowed, 3160), (sym_ERR_var_config_not_allowed, 3160),
     (sym_ERR_var_global_not_allowed, 3160), (sym_ERR_method_decl_in_body, 3150),
     (sym_extern_pragma, 7490), (sym_wasm_pragma, 3150), (sym_warn_pragma, 7490),
     (sym_allow_pragma, 3140), (sym_test_pragma, 7490), (sym_once_pragma, 7490),
     (sym_must_call_pragma, 7490), (sym_export_pragma, 7490), (sym_pou_pragma, 7194),
     (sym_direct_variable, 7675), (sym_deref_expression, 2373), (sym_variable, 7599),
     (sym_var_access, 2373), (sym_in_out_decls, 3160), (sym_var_decls, 3160),
     (sym_retain_var_decls, 3160), (sym_temp_var_decls, 3160), (sym_external_var_decls, 3160),
     (sym_global_var_decls, 2947), (sym_loc_partly_var_decl, 3160), (sym__fb_variables, 2347),
     (sym_fb_input_decls, 3160), (sym_fb_output_decls, 3160), (sym_no_retain_var_decls, 3160),
     (sym_fb_body, 8922), (sym_method_decl, 378), (sym_prog_access_decls, 3043), (sym_SFC, 7970),
     (sym_SFC_network, 7612), (sym_initial_step, 7439), (sym_config_init, 3047),
     (sym_variable_access, 7530), (sym_func_call, 2961), (sym_stmt_list, 7970), (sym__stmt, 2024),
     (sym_assign, 3150), (sym_if_stmt, 3150), (sym_case_stmt, 3150), (sym_for_stmt, 3150),
     (sym_while_stmt, 3150), (sym_repeat_stmt, 3150), (sym_raise_stmt, 3150), (sym_try_stmt, 3150),
     (sym_ERR_clause_outside_try, 3150), (sym_begin_path_expression, 2943), (sym_invocation, 2934),
     (sym_any_invocation, 2935), (sym_this_invocation, 2641), (sym_super_invocation, 2641),
     (sym_super_body_invocation, 2935), (sym_path_expression, 2627), (sym_field_expression, 2373),
     (sym_index_expression, 2373), (sym_ladder_diagram, 7970), (sym_fb_diagram, 7970),
     (aux_sym_ERR_fb_variables_after_method_repeat1, 2347), (aux_sym_func_decl_repeat1, 7194),
     (aux_sym_fb_decl_repeat3, 378), (aux_sym_SFC_repeat1, 7612), (aux_sym_stmt_list_repeat1, 2024),
     (aux_sym_ladder_diagram_repeat1, 8009), (aux_sym_fb_diagram_repeat1, 8013),
     (sym_identifier, 298), (aux_sym_ERR_unexpected_this_in_path_token1, 304),
     (aux_sym_ERR_unexpected_super_in_path_token1, 306), (sym_line_comment, 3),
     (anon_sym_LBRACE, 308), (aux_sym_test_pragma_token1, 9), (aux_sym_once_pragma_token1, 11),
     (aux_sym_must_call_pragma_token1, 13), (aux_sym_export_pragma_token1, 15),
     (anon_sym_SEMI, 310), (anon_sym_PERCENT, 312), (aux_sym_input_decls_token1, 314),
     (aux_sym_output_decls_token1, 316), (aux_sym_in_out_decls_token1, 318),
     (aux_sym_var_decls_token1, 320), (aux_sym_temp_var_decls_token1, 322),
     (aux_sym_external_var_decls_token1, 324), (aux_sym_global_var_decls_token1, 326),
     (aux_sym_fb_decl_token4, 1056), (aux_sym_method_decl_token1, 330),
     (aux_sym_prog_access_decls_token1, 332), (aux_sym_initial_step_token1, 334),
     (aux_sym_config_init_token1, 336), (aux_sym__stmt_token1, 340), (aux_sym__stmt_token2, 340),
     (aux_sym__stmt_token3, 340), (aux_sym_if_stmt_token1, 342), (aux_sym_case_stmt_token1, 344),
     (aux_sym_for_stmt_token1, 346), (aux_sym_while_stmt_token1, 348),
     (aux_sym_repeat_stmt_token1, 350), (aux_sym_raise_stmt_token1, 352),
     (aux_sym_try_stmt_token1, 354), (aux_sym_try_stmt_token2, 356),
     (aux_sym_catch_clause_token1, 356), (aux_sym_finally_clause_token1, 356), (sym_ld_rung, 358),
     (sym_fbd_network, 360), (sym_c_style_comment, 3), (sym_pascal_style_comment, 3),
     (sym_pragma, 3)]"

lemma ts_parse_row_363_scan: "row_scan tokens_63_2 0 ts_parse_row_363 = Some (Suc (Suc (Suc (Suc 0))))"
  unfolding ts_parse_row_363_def by simp

text \<open>Lines 96341 to 96453.\<close>

definition ts_parse_row_364 :: parse_row where
  "ts_parse_row_364 =
    [(sym_ERR_assign_func_call, 7530), (sym_ERR_unexpected_this_in_path, 2372),
     (sym_ERR_unexpected_super_in_path, 2372), (sym_ERR_fb_variables_after_method, 1438),
     (sym_ERR_var_access_not_allowed, 3160), (sym_ERR_var_config_not_allowed, 3160),
     (sym_ERR_var_global_not_allowed, 3160), (sym_ERR_method_decl_in_body, 3150),
     (sym_extern_pragma, 7490), (sym_wasm_pragma, 3150), (sym_warn_pragma, 7490),
     (sym_allow_pragma, 3140), (sym_test_pragma, 7490), (sym_once_pragma, 7490),
     (sym_must_call_pragma, 7490), (sym_export_pragma, 7490), (sym_pou_pragma, 7194),
     (sym_direct_variable, 7675), (sym_deref_expression, 2373), (sym_variable, 7599),
     (sym_var_access, 2373), (sym_in_out_decls, 3160), (sym_var_decls, 3160),
     (sym_retain_var_decls, 3160), (sym_temp_var_decls, 3160), (sym_external_var_decls, 3160),
     (sym_global_var_decls, 2947), (sym_loc_partly_var_decl, 3160), (sym__fb_variables, 2343),
     (sym_fb_input_decls, 3160), (sym_fb_output_decls, 3160), (sym_no_retain_var_decls, 3160),
     (sym_fb_body, 10287), (sym_method_decl, 2549), (sym_prog_access_decls, 3043), (sym_SFC, 7970),
     (sym_SFC_network, 7612), (sym_initial_step, 7439), (sym_config_init, 3047),
     (sym_variable_access, 7530), (sym_func_call, 2961), (sym_stmt_list, 7970), (sym__stmt, 2024),
     (sym_assign, 3150), (sym_if_stmt, 3150), (sym_case_stmt, 3150), (sym_for_stmt, 3150),
     (sym_while_stmt, 3150), (sym_repeat_stmt, 3150), (sym_raise_stmt, 3150), (sym_try_stmt, 3150),
     (sym_ERR_clause_outside_try, 3150), (sym_begin_path_expression, 2943), (sym_invocation, 2934),
     (sym_any_invocation, 2935), (sym_this_invocation, 2641), (sym_super_invocation, 2641),
     (sym_super_body_invocation, 2935), (sym_path_expression, 2627), (sym_field_expression, 2373),
     (sym_index_expression, 2373), (sym_ladder_diagram, 7970), (sym_fb_diagram, 7970),
     (aux_sym_ERR_fb_variables_after_method_repeat1, 2343), (aux_sym_func_decl_repeat1, 7194),
     (aux_sym_fb_decl_repeat3, 2549), (aux_sym_SFC_repeat1, 7612),
     (aux_sym_stmt_list_repeat1, 2024), (aux_sym_ladder_diagram_repeat1, 8009),
     (aux_sym_fb_diagram_repeat1, 8013), (sym_identifier, 298),
     (aux_sym_ERR_unexpected_this_in_path_token1, 304),
     (aux_sym_ERR_unexpected_super_in_path_token1, 306), (sym_line_comment, 3),
     (anon_sym_LBRACE, 308), (aux_sym_test_pragma_token1, 9), (aux_sym_once_pragma_token1, 11),
     (aux_sym_must_call_pragma_token1, 13), (aux_sym_export_pragma_token1, 15),
     (anon_sym_SEMI, 310), (anon_sym_PERCENT, 312), (aux_sym_input_decls_token1, 314),
     (aux_sym_output_decls_token1, 316), (aux_sym_in_out_decls_token1, 318),
     (aux_sym_var_decls_token1, 320), (aux_sym_temp_var_decls_token1, 322),
     (aux_sym_external_var_decls_token1, 324), (aux_sym_global_var_decls_token1, 326),
     (aux_sym_fb_decl_token4, 1058), (aux_sym_method_decl_token1, 330),
     (aux_sym_prog_access_decls_token1, 332), (aux_sym_initial_step_token1, 334),
     (aux_sym_config_init_token1, 336), (aux_sym__stmt_token1, 340), (aux_sym__stmt_token2, 340),
     (aux_sym__stmt_token3, 340), (aux_sym_if_stmt_token1, 342), (aux_sym_case_stmt_token1, 344),
     (aux_sym_for_stmt_token1, 346), (aux_sym_while_stmt_token1, 348),
     (aux_sym_repeat_stmt_token1, 350), (aux_sym_raise_stmt_token1, 352),
     (aux_sym_try_stmt_token1, 354), (aux_sym_try_stmt_token2, 356),
     (aux_sym_catch_clause_token1, 356), (aux_sym_finally_clause_token1, 356), (sym_ld_rung, 358),
     (sym_fbd_network, 360), (sym_c_style_comment, 3), (sym_pascal_style_comment, 3),
     (sym_pragma, 3)]"

lemma ts_parse_row_364_scan: "row_scan tokens_63_2 0 ts_parse_row_364 = Some (Suc (Suc (Suc (Suc 0))))"
  unfolding ts_parse_row_364_def by simp

text \<open>Lines 96454 to 96566.\<close>

definition ts_parse_row_365 :: parse_row where
  "ts_parse_row_365 =
    [(sym_ERR_assign_func_call, 7530), (sym_ERR_unexpected_this_in_path, 2372),
     (sym_ERR_unexpected_super_in_path, 2372), (sym_ERR_fb_variables_after_method, 1231),
     (sym_ERR_var_access_not_allowed, 3160), (sym_ERR_var_config_not_allowed, 3160),
     (sym_ERR_var_global_not_allowed, 3160), (sym_ERR_method_decl_in_body, 3150),
     (sym_extern_pragma, 7490), (sym_wasm_pragma, 3150), (sym_warn_pragma, 7490),
     (sym_allow_pragma, 3140), (sym_test_pragma, 7490), (sym_once_pragma, 7490),
     (sym_must_call_pragma, 7490), (sym_export_pragma, 7490), (sym_pou_pragma, 7194),
     (sym_direct_variable, 7675), (sym_deref_expression, 2373), (sym_variable, 7599),
     (sym_var_access, 2373), (sym_in_out_decls, 3160), (sym_var_decls, 3160),
     (sym_retain_var_decls, 3160), (sym_temp_var_decls, 3160), (sym_external_var_decls, 3160),
     (sym_global_var_decls, 2947), (sym_loc_partly_var_decl, 3160), (sym__fb_variables, 2343),
     (sym_fb_input_decls, 3160), (sym_fb_output_decls, 3160), (sym_no_retain_var_decls, 3160),
     (sym_fb_body, 8552), (sym_method_decl, 2549), (sym_prog_access_decls, 3043), (sym_SFC, 7970),
     (sym_SFC_network, 7612), (sym_initial_step, 7439), (sym_config_init, 3047),
     (sym_variable_access, 7530), (sym_func_call, 2961), (sym_stmt_list, 7970), (sym__stmt, 2024),
     (sym_assign, 3150), (sym_if_stmt, 3150), (sym_case_stmt, 3150), (sym_for_stmt, 3150),
     (sym_while_stmt, 3150), (sym_repeat_stmt, 3150), (sym_raise_stmt, 3150), (sym_try_stmt, 3150),
     (sym_ERR_clause_outside_try, 3150), (sym_begin_path_expression, 2943), (sym_invocation, 2934),
     (sym_any_invocation, 2935), (sym_this_invocation, 2641), (sym_super_invocation, 2641),
     (sym_super_body_invocation, 2935), (sym_path_expression, 2627), (sym_field_expression, 2373),
     (sym_index_expression, 2373), (sym_ladder_diagram, 7970), (sym_fb_diagram, 7970),
     (aux_sym_ERR_fb_variables_after_method_repeat1, 2343), (aux_sym_func_decl_repeat1, 7194),
     (aux_sym_fb_decl_repeat3, 2549), (aux_sym_SFC_repeat1, 7612),
     (aux_sym_stmt_list_repeat1, 2024), (aux_sym_ladder_diagram_repeat1, 8009),
     (aux_sym_fb_diagram_repeat1, 8013), (sym_identifier, 298),
     (aux_sym_ERR_unexpected_this_in_path_token1, 304),
     (aux_sym_ERR_unexpected_super_in_path_token1, 306), (sym_line_comment, 3),
     (anon_sym_LBRACE, 308), (aux_sym_test_pragma_token1, 9), (aux_sym_once_pragma_token1, 11),
     (aux_sym_must_call_pragma_token1, 13), (aux_sym_export_pragma_token1, 15),
     (anon_sym_SEMI, 310), (anon_sym_PERCENT, 312), (aux_sym_input_decls_token1, 314),
     (aux_sym_output_decls_token1, 316), (aux_sym_in_out_decls_token1, 318),
     (aux_sym_var_decls_token1, 320), (aux_sym_temp_var_decls_token1, 322),
     (aux_sym_external_var_decls_token1, 324), (aux_sym_global_var_decls_token1, 326),
     (aux_sym_fb_decl_token4, 1060), (aux_sym_method_decl_token1, 330),
     (aux_sym_prog_access_decls_token1, 332), (aux_sym_initial_step_token1, 334),
     (aux_sym_config_init_token1, 336), (aux_sym__stmt_token1, 340), (aux_sym__stmt_token2, 340),
     (aux_sym__stmt_token3, 340), (aux_sym_if_stmt_token1, 342), (aux_sym_case_stmt_token1, 344),
     (aux_sym_for_stmt_token1, 346), (aux_sym_while_stmt_token1, 348),
     (aux_sym_repeat_stmt_token1, 350), (aux_sym_raise_stmt_token1, 352),
     (aux_sym_try_stmt_token1, 354), (aux_sym_try_stmt_token2, 356),
     (aux_sym_catch_clause_token1, 356), (aux_sym_finally_clause_token1, 356), (sym_ld_rung, 358),
     (sym_fbd_network, 360), (sym_c_style_comment, 3), (sym_pascal_style_comment, 3),
     (sym_pragma, 3)]"

lemma ts_parse_row_365_scan: "row_scan tokens_63_2 0 ts_parse_row_365 = Some (Suc (Suc (Suc (Suc 0))))"
  unfolding ts_parse_row_365_def by simp

text \<open>Lines 96567 to 96679.\<close>

definition ts_parse_row_366 :: parse_row where
  "ts_parse_row_366 =
    [(sym_ERR_assign_func_call, 7530), (sym_ERR_unexpected_this_in_path, 2372),
     (sym_ERR_unexpected_super_in_path, 2372), (sym_ERR_fb_variables_after_method, 1232),
     (sym_ERR_var_access_not_allowed, 3160), (sym_ERR_var_config_not_allowed, 3160),
     (sym_ERR_var_global_not_allowed, 3160), (sym_ERR_method_decl_in_body, 3150),
     (sym_extern_pragma, 7490), (sym_wasm_pragma, 3150), (sym_warn_pragma, 7490),
     (sym_allow_pragma, 3140), (sym_test_pragma, 7490), (sym_once_pragma, 7490),
     (sym_must_call_pragma, 7490), (sym_export_pragma, 7490), (sym_pou_pragma, 7194),
     (sym_direct_variable, 7675), (sym_deref_expression, 2373), (sym_variable, 7599),
     (sym_var_access, 2373), (sym_in_out_decls, 3160), (sym_var_decls, 3160),
     (sym_retain_var_decls, 3160), (sym_temp_var_decls, 3160), (sym_external_var_decls, 3160),
     (sym_global_var_decls, 2947), (sym_loc_partly_var_decl, 3160), (sym__fb_variables, 2343),
     (sym_fb_input_decls, 3160), (sym_fb_output_decls, 3160), (sym_no_retain_var_decls, 3160),
     (sym_fb_body, 8599), (sym_method_decl, 2549), (sym_prog_access_decls, 3043), (sym_SFC, 7970),
     (sym_SFC_network, 7612), (sym_initial_step, 7439), (sym_config_init, 3047),
     (sym_variable_access, 7530), (sym_func_call, 2961), (sym_stmt_list, 7970), (sym__stmt, 2024),
     (sym_assign, 3150), (sym_if_stmt, 3150), (sym_case_stmt, 3150), (sym_for_stmt, 3150),
     (sym_while_stmt, 3150), (sym_repeat_stmt, 3150), (sym_raise_stmt, 3150), (sym_try_stmt, 3150),
     (sym_ERR_clause_outside_try, 3150), (sym_begin_path_expression, 2943), (sym_invocation, 2934),
     (sym_any_invocation, 2935), (sym_this_invocation, 2641), (sym_super_invocation, 2641),
     (sym_super_body_invocation, 2935), (sym_path_expression, 2627), (sym_field_expression, 2373),
     (sym_index_expression, 2373), (sym_ladder_diagram, 7970), (sym_fb_diagram, 7970),
     (aux_sym_ERR_fb_variables_after_method_repeat1, 2343), (aux_sym_func_decl_repeat1, 7194),
     (aux_sym_fb_decl_repeat3, 2549), (aux_sym_SFC_repeat1, 7612),
     (aux_sym_stmt_list_repeat1, 2024), (aux_sym_ladder_diagram_repeat1, 8009),
     (aux_sym_fb_diagram_repeat1, 8013), (sym_identifier, 298),
     (aux_sym_ERR_unexpected_this_in_path_token1, 304),
     (aux_sym_ERR_unexpected_super_in_path_token1, 306), (sym_line_comment, 3),
     (anon_sym_LBRACE, 308), (aux_sym_test_pragma_token1, 9), (aux_sym_once_pragma_token1, 11),
     (aux_sym_must_call_pragma_token1, 13), (aux_sym_export_pragma_token1, 15),
     (anon_sym_SEMI, 310), (anon_sym_PERCENT, 312), (aux_sym_input_decls_token1, 314),
     (aux_sym_output_decls_token1, 316), (aux_sym_in_out_decls_token1, 318),
     (aux_sym_var_decls_token1, 320), (aux_sym_temp_var_decls_token1, 322),
     (aux_sym_external_var_decls_token1, 324), (aux_sym_global_var_decls_token1, 326),
     (aux_sym_fb_decl_token4, 1062), (aux_sym_method_decl_token1, 330),
     (aux_sym_prog_access_decls_token1, 332), (aux_sym_initial_step_token1, 334),
     (aux_sym_config_init_token1, 336), (aux_sym__stmt_token1, 340), (aux_sym__stmt_token2, 340),
     (aux_sym__stmt_token3, 340), (aux_sym_if_stmt_token1, 342), (aux_sym_case_stmt_token1, 344),
     (aux_sym_for_stmt_token1, 346), (aux_sym_while_stmt_token1, 348),
     (aux_sym_repeat_stmt_token1, 350), (aux_sym_raise_stmt_token1, 352),
     (aux_sym_try_stmt_token1, 354), (aux_sym_try_stmt_token2, 356),
     (aux_sym_catch_clause_token1, 356), (aux_sym_finally_clause_token1, 356), (sym_ld_rung, 358),
     (sym_fbd_network, 360), (sym_c_style_comment, 3), (sym_pascal_style_comment, 3),
     (sym_pragma, 3)]"

lemma ts_parse_row_366_scan: "row_scan tokens_63_2 0 ts_parse_row_366 = Some (Suc (Suc (Suc (Suc 0))))"
  unfolding ts_parse_row_366_def by simp

text \<open>Lines 96680 to 96792.\<close>

definition ts_parse_row_367 :: parse_row where
  "ts_parse_row_367 =
    [(sym_ERR_assign_func_call, 7530), (sym_ERR_unexpected_this_in_path, 2372),
     (sym_ERR_unexpected_super_in_path, 2372), (sym_ERR_fb_variables_after_method, 1233),
     (sym_ERR_var_access_not_allowed, 3160), (sym_ERR_var_config_not_allowed, 3160),
     (sym_ERR_var_global_not_allowed, 3160), (sym_ERR_method_decl_in_body, 3150),
     (sym_extern_pragma, 7490), (sym_wasm_pragma, 3150), (sym_warn_pragma, 7490),
     (sym_allow_pragma, 3140), (sym_test_pragma, 7490), (sym_once_pragma, 7490),
     (sym_must_call_pragma, 7490), (sym_export_pragma, 7490), (sym_pou_pragma, 7194),
     (sym_direct_variable, 7675), (sym_deref_expression, 2373), (sym_variable, 7599),
     (sym_var_access, 2373), (sym_in_out_decls, 3160), (sym_var_decls, 3160),
     (sym_retain_var_decls, 3160), (sym_temp_var_decls, 3160), (sym_external_var_decls, 3160),
     (sym_global_var_decls, 2947), (sym_loc_partly_var_decl, 3160), (sym__fb_variables, 2343),
     (sym_fb_input_decls, 3160), (sym_fb_output_decls, 3160), (sym_no_retain_var_decls, 3160),
     (sym_fb_body, 8617), (sym_method_decl, 2549), (sym_prog_access_decls, 3043), (sym_SFC, 7970),
     (sym_SFC_network, 7612), (sym_initial_step, 7439), (sym_config_init, 3047),
     (sym_variable_access, 7530), (sym_func_call, 2961), (sym_stmt_list, 7970), (sym__stmt, 2024),
     (sym_assign, 3150), (sym_if_stmt, 3150), (sym_case_stmt, 3150), (sym_for_stmt, 3150),
     (sym_while_stmt, 3150), (sym_repeat_stmt, 3150), (sym_raise_stmt, 3150), (sym_try_stmt, 3150),
     (sym_ERR_clause_outside_try, 3150), (sym_begin_path_expression, 2943), (sym_invocation, 2934),
     (sym_any_invocation, 2935), (sym_this_invocation, 2641), (sym_super_invocation, 2641),
     (sym_super_body_invocation, 2935), (sym_path_expression, 2627), (sym_field_expression, 2373),
     (sym_index_expression, 2373), (sym_ladder_diagram, 7970), (sym_fb_diagram, 7970),
     (aux_sym_ERR_fb_variables_after_method_repeat1, 2343), (aux_sym_func_decl_repeat1, 7194),
     (aux_sym_fb_decl_repeat3, 2549), (aux_sym_SFC_repeat1, 7612),
     (aux_sym_stmt_list_repeat1, 2024), (aux_sym_ladder_diagram_repeat1, 8009),
     (aux_sym_fb_diagram_repeat1, 8013), (sym_identifier, 298),
     (aux_sym_ERR_unexpected_this_in_path_token1, 304),
     (aux_sym_ERR_unexpected_super_in_path_token1, 306), (sym_line_comment, 3),
     (anon_sym_LBRACE, 308), (aux_sym_test_pragma_token1, 9), (aux_sym_once_pragma_token1, 11),
     (aux_sym_must_call_pragma_token1, 13), (aux_sym_export_pragma_token1, 15),
     (anon_sym_SEMI, 310), (anon_sym_PERCENT, 312), (aux_sym_input_decls_token1, 314),
     (aux_sym_output_decls_token1, 316), (aux_sym_in_out_decls_token1, 318),
     (aux_sym_var_decls_token1, 320), (aux_sym_temp_var_decls_token1, 322),
     (aux_sym_external_var_decls_token1, 324), (aux_sym_global_var_decls_token1, 326),
     (aux_sym_fb_decl_token4, 1064), (aux_sym_method_decl_token1, 330),
     (aux_sym_prog_access_decls_token1, 332), (aux_sym_initial_step_token1, 334),
     (aux_sym_config_init_token1, 336), (aux_sym__stmt_token1, 340), (aux_sym__stmt_token2, 340),
     (aux_sym__stmt_token3, 340), (aux_sym_if_stmt_token1, 342), (aux_sym_case_stmt_token1, 344),
     (aux_sym_for_stmt_token1, 346), (aux_sym_while_stmt_token1, 348),
     (aux_sym_repeat_stmt_token1, 350), (aux_sym_raise_stmt_token1, 352),
     (aux_sym_try_stmt_token1, 354), (aux_sym_try_stmt_token2, 356),
     (aux_sym_catch_clause_token1, 356), (aux_sym_finally_clause_token1, 356), (sym_ld_rung, 358),
     (sym_fbd_network, 360), (sym_c_style_comment, 3), (sym_pascal_style_comment, 3),
     (sym_pragma, 3)]"

lemma ts_parse_row_367_scan: "row_scan tokens_63_2 0 ts_parse_row_367 = Some (Suc (Suc (Suc (Suc 0))))"
  unfolding ts_parse_row_367_def by simp

text \<open>Lines 96793 to 96905.\<close>

definition ts_parse_row_368 :: parse_row where
  "ts_parse_row_368 =
    [(sym_ERR_assign_func_call, 7530), (sym_ERR_unexpected_this_in_path, 2372),
     (sym_ERR_unexpected_super_in_path, 2372), (sym_ERR_fb_variables_after_method, 1234),
     (sym_ERR_var_access_not_allowed, 3160), (sym_ERR_var_config_not_allowed, 3160),
     (sym_ERR_var_global_not_allowed, 3160), (sym_ERR_method_decl_in_body, 3150),
     (sym_extern_pragma, 7490), (sym_wasm_pragma, 3150), (sym_warn_pragma, 7490),
     (sym_allow_pragma, 3140), (sym_test_pragma, 7490), (sym_once_pragma, 7490),
     (sym_must_call_pragma, 7490), (sym_export_pragma, 7490), (sym_pou_pragma, 7194),
     (sym_direct_variable, 7675), (sym_deref_expression, 2373), (sym_variable, 7599),
     (sym_var_access, 2373), (sym_in_out_decls, 3160), (sym_var_decls, 3160),
     (sym_retain_var_decls, 3160), (sym_temp_var_decls, 3160), (sym_external_var_decls, 3160),
     (sym_global_var_decls, 2947), (sym_loc_partly_var_decl, 3160), (sym__fb_variables, 2347),
     (sym_fb_input_decls, 3160), (sym_fb_output_decls, 3160), (sym_no_retain_var_decls, 3160),
     (sym_fb_body, 8627), (sym_method_decl, 515), (sym_prog_access_decls, 3043), (sym_SFC, 7970),
     (sym_SFC_network, 7612), (sym_initial_step, 7439), (sym_config_init, 3047),
     (sym_variable_access, 7530), (sym_func_call, 2961), (sym_stmt_list, 7970), (sym__stmt, 2024),
     (sym_assign, 3150), (sym_if_stmt, 3150), (sym_case_stmt, 3150), (sym_for_stmt, 3150),
     (sym_while_stmt, 3150), (sym_repeat_stmt, 3150), (sym_raise_stmt, 3150), (sym_try_stmt, 3150),
     (sym_ERR_clause_outside_try, 3150), (sym_begin_path_expression, 2943), (sym_invocation, 2934),
     (sym_any_invocation, 2935), (sym_this_invocation, 2641), (sym_super_invocation, 2641),
     (sym_super_body_invocation, 2935), (sym_path_expression, 2627), (sym_field_expression, 2373),
     (sym_index_expression, 2373), (sym_ladder_diagram, 7970), (sym_fb_diagram, 7970),
     (aux_sym_ERR_fb_variables_after_method_repeat1, 2347), (aux_sym_func_decl_repeat1, 7194),
     (aux_sym_fb_decl_repeat3, 515), (aux_sym_SFC_repeat1, 7612), (aux_sym_stmt_list_repeat1, 2024),
     (aux_sym_ladder_diagram_repeat1, 8009), (aux_sym_fb_diagram_repeat1, 8013),
     (sym_identifier, 298), (aux_sym_ERR_unexpected_this_in_path_token1, 304),
     (aux_sym_ERR_unexpected_super_in_path_token1, 306), (sym_line_comment, 3),
     (anon_sym_LBRACE, 308), (aux_sym_test_pragma_token1, 9), (aux_sym_once_pragma_token1, 11),
     (aux_sym_must_call_pragma_token1, 13), (aux_sym_export_pragma_token1, 15),
     (anon_sym_SEMI, 310), (anon_sym_PERCENT, 312), (aux_sym_input_decls_token1, 314),
     (aux_sym_output_decls_token1, 316), (aux_sym_in_out_decls_token1, 318),
     (aux_sym_var_decls_token1, 320), (aux_sym_temp_var_decls_token1, 322),
     (aux_sym_external_var_decls_token1, 324), (aux_sym_global_var_decls_token1, 326),
     (aux_sym_fb_decl_token4, 1066), (aux_sym_method_decl_token1, 330),
     (aux_sym_prog_access_decls_token1, 332), (aux_sym_initial_step_token1, 334),
     (aux_sym_config_init_token1, 336), (aux_sym__stmt_token1, 340), (aux_sym__stmt_token2, 340),
     (aux_sym__stmt_token3, 340), (aux_sym_if_stmt_token1, 342), (aux_sym_case_stmt_token1, 344),
     (aux_sym_for_stmt_token1, 346), (aux_sym_while_stmt_token1, 348),
     (aux_sym_repeat_stmt_token1, 350), (aux_sym_raise_stmt_token1, 352),
     (aux_sym_try_stmt_token1, 354), (aux_sym_try_stmt_token2, 356),
     (aux_sym_catch_clause_token1, 356), (aux_sym_finally_clause_token1, 356), (sym_ld_rung, 358),
     (sym_fbd_network, 360), (sym_c_style_comment, 3), (sym_pascal_style_comment, 3),
     (sym_pragma, 3)]"

lemma ts_parse_row_368_scan: "row_scan tokens_63_2 0 ts_parse_row_368 = Some (Suc (Suc (Suc (Suc 0))))"
  unfolding ts_parse_row_368_def by simp

text \<open>Lines 96906 to 97018.\<close>

definition ts_parse_row_369 :: parse_row where
  "ts_parse_row_369 =
    [(sym_ERR_assign_func_call, 7530), (sym_ERR_unexpected_this_in_path, 2372),
     (sym_ERR_unexpected_super_in_path, 2372), (sym_ERR_fb_variables_after_method, 1235),
     (sym_ERR_var_access_not_allowed, 3160), (sym_ERR_var_config_not_allowed, 3160),
     (sym_ERR_var_global_not_allowed, 3160), (sym_ERR_method_decl_in_body, 3150),
     (sym_extern_pragma, 7490), (sym_wasm_pragma, 3150), (sym_warn_pragma, 7490),
     (sym_allow_pragma, 3140), (sym_test_pragma, 7490), (sym_once_pragma, 7490),
     (sym_must_call_pragma, 7490), (sym_export_pragma, 7490), (sym_pou_pragma, 7194),
     (sym_direct_variable, 7675), (sym_deref_expression, 2373), (sym_variable, 7599),
     (sym_var_access, 2373), (sym_in_out_decls, 3160), (sym_var_decls, 3160),
     (sym_retain_var_decls, 3160), (sym_temp_var_decls, 3160), (sym_external_var_decls, 3160),
     (sym_global_var_decls, 2947), (sym_loc_partly_var_decl, 3160), (sym__fb_variables, 2343),
     (sym_fb_input_decls, 3160), (sym_fb_output_decls, 3160), (sym_no_retain_var_decls, 3160),
     (sym_fb_body, 8634), (sym_method_decl, 2549), (sym_prog_access_decls, 3043), (sym_SFC, 7970),
     (sym_SFC_network, 7612), (sym_initial_step, 7439), (sym_config_init, 3047),
     (sym_variable_access, 7530), (sym_func_call, 2961), (sym_stmt_list, 7970), (sym__stmt, 2024),
     (sym_assign, 3150), (sym_if_stmt, 3150), (sym_case_stmt, 3150), (sym_for_stmt, 3150),
     (sym_while_stmt, 3150), (sym_repeat_stmt, 3150), (sym_raise_stmt, 3150), (sym_try_stmt, 3150),
     (sym_ERR_clause_outside_try, 3150), (sym_begin_path_expression, 2943), (sym_invocation, 2934),
     (sym_any_invocation, 2935), (sym_this_invocation, 2641), (sym_super_invocation, 2641),
     (sym_super_body_invocation, 2935), (sym_path_expression, 2627), (sym_field_expression, 2373),
     (sym_index_expression, 2373), (sym_ladder_diagram, 7970), (sym_fb_diagram, 7970),
     (aux_sym_ERR_fb_variables_after_method_repeat1, 2343), (aux_sym_func_decl_repeat1, 7194),
     (aux_sym_fb_decl_repeat3, 2549), (aux_sym_SFC_repeat1, 7612),
     (aux_sym_stmt_list_repeat1, 2024), (aux_sym_ladder_diagram_repeat1, 8009),
     (aux_sym_fb_diagram_repeat1, 8013), (sym_identifier, 298),
     (aux_sym_ERR_unexpected_this_in_path_token1, 304),
     (aux_sym_ERR_unexpected_super_in_path_token1, 306), (sym_line_comment, 3),
     (anon_sym_LBRACE, 308), (aux_sym_test_pragma_token1, 9), (aux_sym_once_pragma_token1, 11),
     (aux_sym_must_call_pragma_token1, 13), (aux_sym_export_pragma_token1, 15),
     (anon_sym_SEMI, 310), (anon_sym_PERCENT, 312), (aux_sym_input_decls_token1, 314),
     (aux_sym_output_decls_token1, 316), (aux_sym_in_out_decls_token1, 318),
     (aux_sym_var_decls_token1, 320), (aux_sym_temp_var_decls_token1, 322),
     (aux_sym_external_var_decls_token1, 324), (aux_sym_global_var_decls_token1, 326),
     (aux_sym_fb_decl_token4, 1068), (aux_sym_method_decl_token1, 330),
     (aux_sym_prog_access_decls_token1, 332), (aux_sym_initial_step_token1, 334),
     (aux_sym_config_init_token1, 336), (aux_sym__stmt_token1, 340), (aux_sym__stmt_token2, 340),
     (aux_sym__stmt_token3, 340), (aux_sym_if_stmt_token1, 342), (aux_sym_case_stmt_token1, 344),
     (aux_sym_for_stmt_token1, 346), (aux_sym_while_stmt_token1, 348),
     (aux_sym_repeat_stmt_token1, 350), (aux_sym_raise_stmt_token1, 352),
     (aux_sym_try_stmt_token1, 354), (aux_sym_try_stmt_token2, 356),
     (aux_sym_catch_clause_token1, 356), (aux_sym_finally_clause_token1, 356), (sym_ld_rung, 358),
     (sym_fbd_network, 360), (sym_c_style_comment, 3), (sym_pascal_style_comment, 3),
     (sym_pragma, 3)]"

lemma ts_parse_row_369_scan: "row_scan tokens_63_2 0 ts_parse_row_369 = Some (Suc (Suc (Suc (Suc 0))))"
  unfolding ts_parse_row_369_def by simp

text \<open>Lines 97019 to 97131.\<close>

definition ts_parse_row_370 :: parse_row where
  "ts_parse_row_370 =
    [(sym_ERR_assign_func_call, 7530), (sym_ERR_unexpected_this_in_path, 2372),
     (sym_ERR_unexpected_super_in_path, 2372), (sym_ERR_fb_variables_after_method, 1236),
     (sym_ERR_var_access_not_allowed, 3160), (sym_ERR_var_config_not_allowed, 3160),
     (sym_ERR_var_global_not_allowed, 3160), (sym_ERR_method_decl_in_body, 3150),
     (sym_extern_pragma, 7490), (sym_wasm_pragma, 3150), (sym_warn_pragma, 7490),
     (sym_allow_pragma, 3140), (sym_test_pragma, 7490), (sym_once_pragma, 7490),
     (sym_must_call_pragma, 7490), (sym_export_pragma, 7490), (sym_pou_pragma, 7194),
     (sym_direct_variable, 7675), (sym_deref_expression, 2373), (sym_variable, 7599),
     (sym_var_access, 2373), (sym_in_out_decls, 3160), (sym_var_decls, 3160),
     (sym_retain_var_decls, 3160), (sym_temp_var_decls, 3160), (sym_external_var_decls, 3160),
     (sym_global_var_decls, 2947), (sym_loc_partly_var_decl, 3160), (sym__fb_variables, 2343),
     (sym_fb_input_decls, 3160), (sym_fb_output_decls, 3160), (sym_no_retain_var_decls, 3160),
     (sym_fb_body, 8671), (sym_method_decl, 2549), (sym_prog_access_decls, 3043), (sym_SFC, 7970),
     (sym_SFC_network, 7612), (sym_initial_step, 7439), (sym_config_init, 3047),
     (sym_variable_access, 7530), (sym_func_call, 2961), (sym_stmt_list, 7970), (sym__stmt, 2024),
     (sym_assign, 3150), (sym_if_stmt, 3150), (sym_case_stmt, 3150), (sym_for_stmt, 3150),
     (sym_while_stmt, 3150), (sym_repeat_stmt, 3150), (sym_raise_stmt, 3150), (sym_try_stmt, 3150),
     (sym_ERR_clause_outside_try, 3150), (sym_begin_path_expression, 2943), (sym_invocation, 2934),
     (sym_any_invocation, 2935), (sym_this_invocation, 2641), (sym_super_invocation, 2641),
     (sym_super_body_invocation, 2935), (sym_path_expression, 2627), (sym_field_expression, 2373),
     (sym_index_expression, 2373), (sym_ladder_diagram, 7970), (sym_fb_diagram, 7970),
     (aux_sym_ERR_fb_variables_after_method_repeat1, 2343), (aux_sym_func_decl_repeat1, 7194),
     (aux_sym_fb_decl_repeat3, 2549), (aux_sym_SFC_repeat1, 7612),
     (aux_sym_stmt_list_repeat1, 2024), (aux_sym_ladder_diagram_repeat1, 8009),
     (aux_sym_fb_diagram_repeat1, 8013), (sym_identifier, 298),
     (aux_sym_ERR_unexpected_this_in_path_token1, 304),
     (aux_sym_ERR_unexpected_super_in_path_token1, 306), (sym_line_comment, 3),
     (anon_sym_LBRACE, 308), (aux_sym_test_pragma_token1, 9), (aux_sym_once_pragma_token1, 11),
     (aux_sym_must_call_pragma_token1, 13), (aux_sym_export_pragma_token1, 15),
     (anon_sym_SEMI, 310), (anon_sym_PERCENT, 312), (aux_sym_input_decls_token1, 314),
     (aux_sym_output_decls_token1, 316), (aux_sym_in_out_decls_token1, 318),
     (aux_sym_var_decls_token1, 320), (aux_sym_temp_var_decls_token1, 322),
     (aux_sym_external_var_decls_token1, 324), (aux_sym_global_var_decls_token1, 326),
     (aux_sym_fb_decl_token4, 1070), (aux_sym_method_decl_token1, 330),
     (aux_sym_prog_access_decls_token1, 332), (aux_sym_initial_step_token1, 334),
     (aux_sym_config_init_token1, 336), (aux_sym__stmt_token1, 340), (aux_sym__stmt_token2, 340),
     (aux_sym__stmt_token3, 340), (aux_sym_if_stmt_token1, 342), (aux_sym_case_stmt_token1, 344),
     (aux_sym_for_stmt_token1, 346), (aux_sym_while_stmt_token1, 348),
     (aux_sym_repeat_stmt_token1, 350), (aux_sym_raise_stmt_token1, 352),
     (aux_sym_try_stmt_token1, 354), (aux_sym_try_stmt_token2, 356),
     (aux_sym_catch_clause_token1, 356), (aux_sym_finally_clause_token1, 356), (sym_ld_rung, 358),
     (sym_fbd_network, 360), (sym_c_style_comment, 3), (sym_pascal_style_comment, 3),
     (sym_pragma, 3)]"

lemma ts_parse_row_370_scan: "row_scan tokens_63_2 0 ts_parse_row_370 = Some (Suc (Suc (Suc (Suc 0))))"
  unfolding ts_parse_row_370_def by simp

text \<open>Lines 97132 to 97244.\<close>

definition ts_parse_row_371 :: parse_row where
  "ts_parse_row_371 =
    [(sym_ERR_assign_func_call, 7530), (sym_ERR_unexpected_this_in_path, 2372),
     (sym_ERR_unexpected_super_in_path, 2372), (sym_ERR_fb_variables_after_method, 1237),
     (sym_ERR_var_access_not_allowed, 3160), (sym_ERR_var_config_not_allowed, 3160),
     (sym_ERR_var_global_not_allowed, 3160), (sym_ERR_method_decl_in_body, 3150),
     (sym_extern_pragma, 7490), (sym_wasm_pragma, 3150), (sym_warn_pragma, 7490),
     (sym_allow_pragma, 3140), (sym_test_pragma, 7490), (sym_once_pragma, 7490),
     (sym_must_call_pragma, 7490), (sym_export_pragma, 7490), (sym_pou_pragma, 7194),
     (sym_direct_variable, 7675), (sym_deref_expression, 2373), (sym_variable, 7599),
     (sym_var_access, 2373), (sym_in_out_decls, 3160), (sym_var_decls, 3160),
     (sym_retain_var_decls, 3160), (sym_temp_var_decls, 3160), (sym_external_var_decls, 3160),
     (sym_global_var_decls, 2947), (sym_loc_partly_var_decl, 3160), (sym__fb_variables, 2343),
     (sym_fb_input_decls, 3160), (sym_fb_output_decls, 3160), (sym_no_retain_var_decls, 3160),
     (sym_fb_body, 8690), (sym_method_decl, 2549), (sym_prog_access_decls, 3043), (sym_SFC, 7970),
     (sym_SFC_network, 7612), (sym_initial_step, 7439), (sym_config_init, 3047),
     (sym_variable_access, 7530), (sym_func_call, 2961), (sym_stmt_list, 7970), (sym__stmt, 2024),
     (sym_assign, 3150), (sym_if_stmt, 3150), (sym_case_stmt, 3150), (sym_for_stmt, 3150),
     (sym_while_stmt, 3150), (sym_repeat_stmt, 3150), (sym_raise_stmt, 3150), (sym_try_stmt, 3150),
     (sym_ERR_clause_outside_try, 3150), (sym_begin_path_expression, 2943), (sym_invocation, 2934),
     (sym_any_invocation, 2935), (sym_this_invocation, 2641), (sym_super_invocation, 2641),
     (sym_super_body_invocation, 2935), (sym_path_expression, 2627), (sym_field_expression, 2373),
     (sym_index_expression, 2373), (sym_ladder_diagram, 7970), (sym_fb_diagram, 7970),
     (aux_sym_ERR_fb_variables_after_method_repeat1, 2343), (aux_sym_func_decl_repeat1, 7194),
     (aux_sym_fb_decl_repeat3, 2549), (aux_sym_SFC_repeat1, 7612),
     (aux_sym_stmt_list_repeat1, 2024), (aux_sym_ladder_diagram_repeat1, 8009),
     (aux_sym_fb_diagram_repeat1, 8013), (sym_identifier, 298),
     (aux_sym_ERR_unexpected_this_in_path_token1, 304),
     (aux_sym_ERR_unexpected_super_in_path_token1, 306), (sym_line_comment, 3),
     (anon_sym_LBRACE, 308), (aux_sym_test_pragma_token1, 9), (aux_sym_once_pragma_token1, 11),
     (aux_sym_must_call_pragma_token1, 13), (aux_sym_export_pragma_token1, 15),
     (anon_sym_SEMI, 310), (anon_sym_PERCENT, 312), (aux_sym_input_decls_token1, 314),
     (aux_sym_output_decls_token1, 316), (aux_sym_in_out_decls_token1, 318),
     (aux_sym_var_decls_token1, 320), (aux_sym_temp_var_decls_token1, 322),
     (aux_sym_external_var_decls_token1, 324), (aux_sym_global_var_decls_token1, 326),
     (aux_sym_fb_decl_token4, 1072), (aux_sym_method_decl_token1, 330),
     (aux_sym_prog_access_decls_token1, 332), (aux_sym_initial_step_token1, 334),
     (aux_sym_config_init_token1, 336), (aux_sym__stmt_token1, 340), (aux_sym__stmt_token2, 340),
     (aux_sym__stmt_token3, 340), (aux_sym_if_stmt_token1, 342), (aux_sym_case_stmt_token1, 344),
     (aux_sym_for_stmt_token1, 346), (aux_sym_while_stmt_token1, 348),
     (aux_sym_repeat_stmt_token1, 350), (aux_sym_raise_stmt_token1, 352),
     (aux_sym_try_stmt_token1, 354), (aux_sym_try_stmt_token2, 356),
     (aux_sym_catch_clause_token1, 356), (aux_sym_finally_clause_token1, 356), (sym_ld_rung, 358),
     (sym_fbd_network, 360), (sym_c_style_comment, 3), (sym_pascal_style_comment, 3),
     (sym_pragma, 3)]"

lemma ts_parse_row_371_scan: "row_scan tokens_63_2 0 ts_parse_row_371 = Some (Suc (Suc (Suc (Suc 0))))"
  unfolding ts_parse_row_371_def by simp

text \<open>Lines 97245 to 97357.\<close>

definition ts_parse_row_372 :: parse_row where
  "ts_parse_row_372 =
    [(sym_ERR_assign_func_call, 7530), (sym_ERR_unexpected_this_in_path, 2372),
     (sym_ERR_unexpected_super_in_path, 2372), (sym_ERR_fb_variables_after_method, 1238),
     (sym_ERR_var_access_not_allowed, 3160), (sym_ERR_var_config_not_allowed, 3160),
     (sym_ERR_var_global_not_allowed, 3160), (sym_ERR_method_decl_in_body, 3150),
     (sym_extern_pragma, 7490), (sym_wasm_pragma, 3150), (sym_warn_pragma, 7490),
     (sym_allow_pragma, 3140), (sym_test_pragma, 7490), (sym_once_pragma, 7490),
     (sym_must_call_pragma, 7490), (sym_export_pragma, 7490), (sym_pou_pragma, 7194),
     (sym_direct_variable, 7675), (sym_deref_expression, 2373), (sym_variable, 7599),
     (sym_var_access, 2373), (sym_in_out_decls, 3160), (sym_var_decls, 3160),
     (sym_retain_var_decls, 3160), (sym_temp_var_decls, 3160), (sym_external_var_decls, 3160),
     (sym_global_var_decls, 2947), (sym_loc_partly_var_decl, 3160), (sym__fb_variables, 2347),
     (sym_fb_input_decls, 3160), (sym_fb_output_decls, 3160), (sym_no_retain_var_decls, 3160),
     (sym_fb_body, 8700), (sym_method_decl, 516), (sym_prog_access_decls, 3043), (sym_SFC, 7970),
     (sym_SFC_network, 7612), (sym_initial_step, 7439), (sym_config_init, 3047),
     (sym_variable_access, 7530), (sym_func_call, 2961), (sym_stmt_list, 7970), (sym__stmt, 2024),
     (sym_assign, 3150), (sym_if_stmt, 3150), (sym_case_stmt, 3150), (sym_for_stmt, 3150),
     (sym_while_stmt, 3150), (sym_repeat_stmt, 3150), (sym_raise_stmt, 3150), (sym_try_stmt, 3150),
     (sym_ERR_clause_outside_try, 3150), (sym_begin_path_expression, 2943), (sym_invocation, 2934),
     (sym_any_invocation, 2935), (sym_this_invocation, 2641), (sym_super_invocation, 2641),
     (sym_super_body_invocation, 2935), (sym_path_expression, 2627), (sym_field_expression, 2373),
     (sym_index_expression, 2373), (sym_ladder_diagram, 7970), (sym_fb_diagram, 7970),
     (aux_sym_ERR_fb_variables_after_method_repeat1, 2347), (aux_sym_func_decl_repeat1, 7194),
     (aux_sym_fb_decl_repeat3, 516), (aux_sym_SFC_repeat1, 7612), (aux_sym_stmt_list_repeat1, 2024),
     (aux_sym_ladder_diagram_repeat1, 8009), (aux_sym_fb_diagram_repeat1, 8013),
     (sym_identifier, 298), (aux_sym_ERR_unexpected_this_in_path_token1, 304),
     (aux_sym_ERR_unexpected_super_in_path_token1, 306), (sym_line_comment, 3),
     (anon_sym_LBRACE, 308), (aux_sym_test_pragma_token1, 9), (aux_sym_once_pragma_token1, 11),
     (aux_sym_must_call_pragma_token1, 13), (aux_sym_export_pragma_token1, 15),
     (anon_sym_SEMI, 310), (anon_sym_PERCENT, 312), (aux_sym_input_decls_token1, 314),
     (aux_sym_output_decls_token1, 316), (aux_sym_in_out_decls_token1, 318),
     (aux_sym_var_decls_token1, 320), (aux_sym_temp_var_decls_token1, 322),
     (aux_sym_external_var_decls_token1, 324), (aux_sym_global_var_decls_token1, 326),
     (aux_sym_fb_decl_token4, 1074), (aux_sym_method_decl_token1, 330),
     (aux_sym_prog_access_decls_token1, 332), (aux_sym_initial_step_token1, 334),
     (aux_sym_config_init_token1, 336), (aux_sym__stmt_token1, 340), (aux_sym__stmt_token2, 340),
     (aux_sym__stmt_token3, 340), (aux_sym_if_stmt_token1, 342), (aux_sym_case_stmt_token1, 344),
     (aux_sym_for_stmt_token1, 346), (aux_sym_while_stmt_token1, 348),
     (aux_sym_repeat_stmt_token1, 350), (aux_sym_raise_stmt_token1, 352),
     (aux_sym_try_stmt_token1, 354), (aux_sym_try_stmt_token2, 356),
     (aux_sym_catch_clause_token1, 356), (aux_sym_finally_clause_token1, 356), (sym_ld_rung, 358),
     (sym_fbd_network, 360), (sym_c_style_comment, 3), (sym_pascal_style_comment, 3),
     (sym_pragma, 3)]"

lemma ts_parse_row_372_scan: "row_scan tokens_63_2 0 ts_parse_row_372 = Some (Suc (Suc (Suc (Suc 0))))"
  unfolding ts_parse_row_372_def by simp

text \<open>Lines 97358 to 97470.\<close>

definition ts_parse_row_373 :: parse_row where
  "ts_parse_row_373 =
    [(sym_ERR_assign_func_call, 7530), (sym_ERR_unexpected_this_in_path, 2372),
     (sym_ERR_unexpected_super_in_path, 2372), (sym_ERR_fb_variables_after_method, 1240),
     (sym_ERR_var_access_not_allowed, 3160), (sym_ERR_var_config_not_allowed, 3160),
     (sym_ERR_var_global_not_allowed, 3160), (sym_ERR_method_decl_in_body, 3150),
     (sym_extern_pragma, 7490), (sym_wasm_pragma, 3150), (sym_warn_pragma, 7490),
     (sym_allow_pragma, 3140), (sym_test_pragma, 7490), (sym_once_pragma, 7490),
     (sym_must_call_pragma, 7490), (sym_export_pragma, 7490), (sym_pou_pragma, 7194),
     (sym_direct_variable, 7675), (sym_deref_expression, 2373), (sym_variable, 7599),
     (sym_var_access, 2373), (sym_in_out_decls, 3160), (sym_var_decls, 3160),
     (sym_retain_var_decls, 3160), (sym_temp_var_decls, 3160), (sym_external_var_decls, 3160),
     (sym_global_var_decls, 2947), (sym_loc_partly_var_decl, 3160), (sym__fb_variables, 2343),
     (sym_fb_input_decls, 3160), (sym_fb_output_decls, 3160), (sym_no_retain_var_decls, 3160),
     (sym_fb_body, 8716), (sym_method_decl, 2549), (sym_prog_access_decls, 3043), (sym_SFC, 7970),
     (sym_SFC_network, 7612), (sym_initial_step, 7439), (sym_config_init, 3047),
     (sym_variable_access, 7530), (sym_func_call, 2961), (sym_stmt_list, 7970), (sym__stmt, 2024),
     (sym_assign, 3150), (sym_if_stmt, 3150), (sym_case_stmt, 3150), (sym_for_stmt, 3150),
     (sym_while_stmt, 3150), (sym_repeat_stmt, 3150), (sym_raise_stmt, 3150), (sym_try_stmt, 3150),
     (sym_ERR_clause_outside_try, 3150), (sym_begin_path_expression, 2943), (sym_invocation, 2934),
     (sym_any_invocation, 2935), (sym_this_invocation, 2641), (sym_super_invocation, 2641),
     (sym_super_body_invocation, 2935), (sym_path_expression, 2627), (sym_field_expression, 2373),
     (sym_index_expression, 2373), (sym_ladder_diagram, 7970), (sym_fb_diagram, 7970),
     (aux_sym_ERR_fb_variables_after_method_repeat1, 2343), (aux_sym_func_decl_repeat1, 7194),
     (aux_sym_fb_decl_repeat3, 2549), (aux_sym_SFC_repeat1, 7612),
     (aux_sym_stmt_list_repeat1, 2024), (aux_sym_ladder_diagram_repeat1, 8009),
     (aux_sym_fb_diagram_repeat1, 8013), (sym_identifier, 298),
     (aux_sym_ERR_unexpected_this_in_path_token1, 304),
     (aux_sym_ERR_unexpected_super_in_path_token1, 306), (sym_line_comment, 3),
     (anon_sym_LBRACE, 308), (aux_sym_test_pragma_token1, 9), (aux_sym_once_pragma_token1, 11),
     (aux_sym_must_call_pragma_token1, 13), (aux_sym_export_pragma_token1, 15),
     (anon_sym_SEMI, 310), (anon_sym_PERCENT, 312), (aux_sym_input_decls_token1, 314),
     (aux_sym_output_decls_token1, 316), (aux_sym_in_out_decls_token1, 318),
     (aux_sym_var_decls_token1, 320), (aux_sym_temp_var_decls_token1, 322),
     (aux_sym_external_var_decls_token1, 324), (aux_sym_global_var_decls_token1, 326),
     (aux_sym_fb_decl_token4, 1076), (aux_sym_method_decl_token1, 330),
     (aux_sym_prog_access_decls_token1, 332), (aux_sym_initial_step_token1, 334),
     (aux_sym_config_init_token1, 336), (aux_sym__stmt_token1, 340), (aux_sym__stmt_token2, 340),
     (aux_sym__stmt_token3, 340), (aux_sym_if_stmt_token1, 342), (aux_sym_case_stmt_token1, 344),
     (aux_sym_for_stmt_token1, 346), (aux_sym_while_stmt_token1, 348),
     (aux_sym_repeat_stmt_token1, 350), (aux_sym_raise_stmt_token1, 352),
     (aux_sym_try_stmt_token1, 354), (aux_sym_try_stmt_token2, 356),
     (aux_sym_catch_clause_token1, 356), (aux_sym_finally_clause_token1, 356), (sym_ld_rung, 358),
     (sym_fbd_network, 360), (sym_c_style_comment, 3), (sym_pascal_style_comment, 3),
     (sym_pragma, 3)]"

lemma ts_parse_row_373_scan: "row_scan tokens_63_2 0 ts_parse_row_373 = Some (Suc (Suc (Suc (Suc 0))))"
  unfolding ts_parse_row_373_def by simp

text \<open>Lines 97471 to 97583.\<close>

definition ts_parse_row_374 :: parse_row where
  "ts_parse_row_374 =
    [(sym_ERR_assign_func_call, 7530), (sym_ERR_unexpected_this_in_path, 2372),
     (sym_ERR_unexpected_super_in_path, 2372), (sym_ERR_fb_variables_after_method, 1241),
     (sym_ERR_var_access_not_allowed, 3160), (sym_ERR_var_config_not_allowed, 3160),
     (sym_ERR_var_global_not_allowed, 3160), (sym_ERR_method_decl_in_body, 3150),
     (sym_extern_pragma, 7490), (sym_wasm_pragma, 3150), (sym_warn_pragma, 7490),
     (sym_allow_pragma, 3140), (sym_test_pragma, 7490), (sym_once_pragma, 7490),
     (sym_must_call_pragma, 7490), (sym_export_pragma, 7490), (sym_pou_pragma, 7194),
     (sym_direct_variable, 7675), (sym_deref_expression, 2373), (sym_variable, 7599),
     (sym_var_access, 2373), (sym_in_out_decls, 3160), (sym_var_decls, 3160),
     (sym_retain_var_decls, 3160), (sym_temp_var_decls, 3160), (sym_external_var_decls, 3160),
     (sym_global_var_decls, 2947), (sym_loc_partly_var_decl, 3160), (sym__fb_variables, 2347),
     (sym_fb_input_decls, 3160), (sym_fb_output_decls, 3160), (sym_no_retain_var_decls, 3160),
     (sym_fb_body, 8726), (sym_method_decl, 517), (sym_prog_access_decls, 3043), (sym_SFC, 7970),
     (sym_SFC_network, 7612), (sym_initial_step, 7439), (sym_config_init, 3047),
     (sym_variable_access, 7530), (sym_func_call, 2961), (sym_stmt_list, 7970), (sym__stmt, 2024),
     (sym_assign, 3150), (sym_if_stmt, 3150), (sym_case_stmt, 3150), (sym_for_stmt, 3150),
     (sym_while_stmt, 3150), (sym_repeat_stmt, 3150), (sym_raise_stmt, 3150), (sym_try_stmt, 3150),
     (sym_ERR_clause_outside_try, 3150), (sym_begin_path_expression, 2943), (sym_invocation, 2934),
     (sym_any_invocation, 2935), (sym_this_invocation, 2641), (sym_super_invocation, 2641),
     (sym_super_body_invocation, 2935), (sym_path_expression, 2627), (sym_field_expression, 2373),
     (sym_index_expression, 2373), (sym_ladder_diagram, 7970), (sym_fb_diagram, 7970),
     (aux_sym_ERR_fb_variables_after_method_repeat1, 2347), (aux_sym_func_decl_repeat1, 7194),
     (aux_sym_fb_decl_repeat3, 517), (aux_sym_SFC_repeat1, 7612), (aux_sym_stmt_list_repeat1, 2024),
     (aux_sym_ladder_diagram_repeat1, 8009), (aux_sym_fb_diagram_repeat1, 8013),
     (sym_identifier, 298), (aux_sym_ERR_unexpected_this_in_path_token1, 304),
     (aux_sym_ERR_unexpected_super_in_path_token1, 306), (sym_line_comment, 3),
     (anon_sym_LBRACE, 308), (aux_sym_test_pragma_token1, 9), (aux_sym_once_pragma_token1, 11),
     (aux_sym_must_call_pragma_token1, 13), (aux_sym_export_pragma_token1, 15),
     (anon_sym_SEMI, 310), (anon_sym_PERCENT, 312), (aux_sym_input_decls_token1, 314),
     (aux_sym_output_decls_token1, 316), (aux_sym_in_out_decls_token1, 318),
     (aux_sym_var_decls_token1, 320), (aux_sym_temp_var_decls_token1, 322),
     (aux_sym_external_var_decls_token1, 324), (aux_sym_global_var_decls_token1, 326),
     (aux_sym_fb_decl_token4, 1078), (aux_sym_method_decl_token1, 330),
     (aux_sym_prog_access_decls_token1, 332), (aux_sym_initial_step_token1, 334),
     (aux_sym_config_init_token1, 336), (aux_sym__stmt_token1, 340), (aux_sym__stmt_token2, 340),
     (aux_sym__stmt_token3, 340), (aux_sym_if_stmt_token1, 342), (aux_sym_case_stmt_token1, 344),
     (aux_sym_for_stmt_token1, 346), (aux_sym_while_stmt_token1, 348),
     (aux_sym_repeat_stmt_token1, 350), (aux_sym_raise_stmt_token1, 352),
     (aux_sym_try_stmt_token1, 354), (aux_sym_try_stmt_token2, 356),
     (aux_sym_catch_clause_token1, 356), (aux_sym_finally_clause_token1, 356), (sym_ld_rung, 358),
     (sym_fbd_network, 360), (sym_c_style_comment, 3), (sym_pascal_style_comment, 3),
     (sym_pragma, 3)]"

lemma ts_parse_row_374_scan: "row_scan tokens_63_2 0 ts_parse_row_374 = Some (Suc (Suc (Suc (Suc 0))))"
  unfolding ts_parse_row_374_def by simp

text \<open>Lines 97584 to 97696.\<close>

definition ts_parse_row_375 :: parse_row where
  "ts_parse_row_375 =
    [(sym_ERR_assign_func_call, 7530), (sym_ERR_unexpected_this_in_path, 2372),
     (sym_ERR_unexpected_super_in_path, 2372), (sym_ERR_fb_variables_after_method, 1984),
     (sym_ERR_var_access_not_allowed, 3160), (sym_ERR_var_config_not_allowed, 3160),
     (sym_ERR_var_global_not_allowed, 3160), (sym_ERR_method_decl_in_body, 3150),
     (sym_extern_pragma, 7490), (sym_wasm_pragma, 3150), (sym_warn_pragma, 7490),
     (sym_allow_pragma, 3140), (sym_test_pragma, 7490), (sym_once_pragma, 7490),
     (sym_must_call_pragma, 7490), (sym_export_pragma, 7490), (sym_pou_pragma, 7194),
     (sym_direct_variable, 7675), (sym_deref_expression, 2373), (sym_variable, 7599),
     (sym_var_access, 2373), (sym_in_out_decls, 3160), (sym_var_decls, 3160),
     (sym_retain_var_decls, 3160), (sym_temp_var_decls, 3160), (sym_external_var_decls, 3160),
     (sym_global_var_decls, 2947), (sym_loc_partly_var_decl, 3160), (sym__fb_variables, 2347),
     (sym_fb_input_decls, 3160), (sym_fb_output_decls, 3160), (sym_no_retain_var_decls, 3160),
     (sym_fb_body, 8748), (sym_method_decl, 315), (sym_prog_access_decls, 3043), (sym_SFC, 7970),
     (sym_SFC_network, 7612), (sym_initial_step, 7439), (sym_config_init, 3047),
     (sym_variable_access, 7530), (sym_func_call, 2961), (sym_stmt_list, 7970), (sym__stmt, 2024),
     (sym_assign, 3150), (sym_if_stmt, 3150), (sym_case_stmt, 3150), (sym_for_stmt, 3150),
     (sym_while_stmt, 3150), (sym_repeat_stmt, 3150), (sym_raise_stmt, 3150), (sym_try_stmt, 3150),
     (sym_ERR_clause_outside_try, 3150), (sym_begin_path_expression, 2943), (sym_invocation, 2934),
     (sym_any_invocation, 2935), (sym_this_invocation, 2641), (sym_super_invocation, 2641),
     (sym_super_body_invocation, 2935), (sym_path_expression, 2627), (sym_field_expression, 2373),
     (sym_index_expression, 2373), (sym_ladder_diagram, 7970), (sym_fb_diagram, 7970),
     (aux_sym_ERR_fb_variables_after_method_repeat1, 2347), (aux_sym_func_decl_repeat1, 7194),
     (aux_sym_fb_decl_repeat3, 315), (aux_sym_SFC_repeat1, 7612), (aux_sym_stmt_list_repeat1, 2024),
     (aux_sym_ladder_diagram_repeat1, 8009), (aux_sym_fb_diagram_repeat1, 8013),
     (sym_identifier, 298), (aux_sym_ERR_unexpected_this_in_path_token1, 304),
     (aux_sym_ERR_unexpected_super_in_path_token1, 306), (sym_line_comment, 3),
     (anon_sym_LBRACE, 308), (aux_sym_test_pragma_token1, 9), (aux_sym_once_pragma_token1, 11),
     (aux_sym_must_call_pragma_token1, 13), (aux_sym_export_pragma_token1, 15),
     (anon_sym_SEMI, 310), (anon_sym_PERCENT, 312), (aux_sym_input_decls_token1, 314),
     (aux_sym_output_decls_token1, 316), (aux_sym_in_out_decls_token1, 318),
     (aux_sym_var_decls_token1, 320), (aux_sym_temp_var_decls_token1, 322),
     (aux_sym_external_var_decls_token1, 324), (aux_sym_global_var_decls_token1, 326),
     (aux_sym_fb_decl_token4, 1080), (aux_sym_method_decl_token1, 330),
     (aux_sym_prog_access_decls_token1, 332), (aux_sym_initial_step_token1, 334),
     (aux_sym_config_init_token1, 336), (aux_sym__stmt_token1, 340), (aux_sym__stmt_token2, 340),
     (aux_sym__stmt_token3, 340), (aux_sym_if_stmt_token1, 342), (aux_sym_case_stmt_token1, 344),
     (aux_sym_for_stmt_token1, 346), (aux_sym_while_stmt_token1, 348),
     (aux_sym_repeat_stmt_token1, 350), (aux_sym_raise_stmt_token1, 352),
     (aux_sym_try_stmt_token1, 354), (aux_sym_try_stmt_token2, 356),
     (aux_sym_catch_clause_token1, 356), (aux_sym_finally_clause_token1, 356), (sym_ld_rung, 358),
     (sym_fbd_network, 360), (sym_c_style_comment, 3), (sym_pascal_style_comment, 3),
     (sym_pragma, 3)]"

lemma ts_parse_row_375_scan: "row_scan tokens_63_2 0 ts_parse_row_375 = Some (Suc (Suc (Suc (Suc 0))))"
  unfolding ts_parse_row_375_def by simp

text \<open>Lines 97697 to 97809.\<close>

definition ts_parse_row_376 :: parse_row where
  "ts_parse_row_376 =
    [(sym_ERR_assign_func_call, 7530), (sym_ERR_unexpected_this_in_path, 2372),
     (sym_ERR_unexpected_super_in_path, 2372), (sym_ERR_fb_variables_after_method, 1246),
     (sym_ERR_var_access_not_allowed, 3160), (sym_ERR_var_config_not_allowed, 3160),
     (sym_ERR_var_global_not_allowed, 3160), (sym_ERR_method_decl_in_body, 3150),
     (sym_extern_pragma, 7490), (sym_wasm_pragma, 3150), (sym_warn_pragma, 7490),
     (sym_allow_pragma, 3140), (sym_test_pragma, 7490), (sym_once_pragma, 7490),
     (sym_must_call_pragma, 7490), (sym_export_pragma, 7490), (sym_pou_pragma, 7194),
     (sym_direct_variable, 7675), (sym_deref_expression, 2373), (sym_variable, 7599),
     (sym_var_access, 2373), (sym_in_out_decls, 3160), (sym_var_decls, 3160),
     (sym_retain_var_decls, 3160), (sym_temp_var_decls, 3160), (sym_external_var_decls, 3160),
     (sym_global_var_decls, 2947), (sym_loc_partly_var_decl, 3160), (sym__fb_variables, 2343),
     (sym_fb_input_decls, 3160), (sym_fb_output_decls, 3160), (sym_no_retain_var_decls, 3160),
     (sym_fb_body, 8742), (sym_method_decl, 2549), (sym_prog_access_decls, 3043), (sym_SFC, 7970),
     (sym_SFC_network, 7612), (sym_initial_step, 7439), (sym_config_init, 3047),
     (sym_variable_access, 7530), (sym_func_call, 2961), (sym_stmt_list, 7970), (sym__stmt, 2024),
     (sym_assign, 3150), (sym_if_stmt, 3150), (sym_case_stmt, 3150), (sym_for_stmt, 3150),
     (sym_while_stmt, 3150), (sym_repeat_stmt, 3150), (sym_raise_stmt, 3150), (sym_try_stmt, 3150),
     (sym_ERR_clause_outside_try, 3150), (sym_begin_path_expression, 2943), (sym_invocation, 2934),
     (sym_any_invocation, 2935), (sym_this_invocation, 2641), (sym_super_invocation, 2641),
     (sym_super_body_invocation, 2935), (sym_path_expression, 2627), (sym_field_expression, 2373),
     (sym_index_expression, 2373), (sym_ladder_diagram, 7970), (sym_fb_diagram, 7970),
     (aux_sym_ERR_fb_variables_after_method_repeat1, 2343), (aux_sym_func_decl_repeat1, 7194),
     (aux_sym_fb_decl_repeat3, 2549), (aux_sym_SFC_repeat1, 7612),
     (aux_sym_stmt_list_repeat1, 2024), (aux_sym_ladder_diagram_repeat1, 8009),
     (aux_sym_fb_diagram_repeat1, 8013), (sym_identifier, 298),
     (aux_sym_ERR_unexpected_this_in_path_token1, 304),
     (aux_sym_ERR_unexpected_super_in_path_token1, 306), (sym_line_comment, 3),
     (anon_sym_LBRACE, 308), (aux_sym_test_pragma_token1, 9), (aux_sym_once_pragma_token1, 11),
     (aux_sym_must_call_pragma_token1, 13), (aux_sym_export_pragma_token1, 15),
     (anon_sym_SEMI, 310), (anon_sym_PERCENT, 312), (aux_sym_input_decls_token1, 314),
     (aux_sym_output_decls_token1, 316), (aux_sym_in_out_decls_token1, 318),
     (aux_sym_var_decls_token1, 320), (aux_sym_temp_var_decls_token1, 322),
     (aux_sym_external_var_decls_token1, 324), (aux_sym_global_var_decls_token1, 326),
     (aux_sym_fb_decl_token4, 1082), (aux_sym_method_decl_token1, 330),
     (aux_sym_prog_access_decls_token1, 332), (aux_sym_initial_step_token1, 334),
     (aux_sym_config_init_token1, 336), (aux_sym__stmt_token1, 340), (aux_sym__stmt_token2, 340),
     (aux_sym__stmt_token3, 340), (aux_sym_if_stmt_token1, 342), (aux_sym_case_stmt_token1, 344),
     (aux_sym_for_stmt_token1, 346), (aux_sym_while_stmt_token1, 348),
     (aux_sym_repeat_stmt_token1, 350), (aux_sym_raise_stmt_token1, 352),
     (aux_sym_try_stmt_token1, 354), (aux_sym_try_stmt_token2, 356),
     (aux_sym_catch_clause_token1, 356), (aux_sym_finally_clause_token1, 356), (sym_ld_rung, 358),
     (sym_fbd_network, 360), (sym_c_style_comment, 3), (sym_pascal_style_comment, 3),
     (sym_pragma, 3)]"

lemma ts_parse_row_376_scan: "row_scan tokens_63_2 0 ts_parse_row_376 = Some (Suc (Suc (Suc (Suc 0))))"
  unfolding ts_parse_row_376_def by simp

text \<open>Lines 97810 to 97922.\<close>

definition ts_parse_row_377 :: parse_row where
  "ts_parse_row_377 =
    [(sym_ERR_assign_func_call, 7530), (sym_ERR_unexpected_this_in_path, 2372),
     (sym_ERR_unexpected_super_in_path, 2372), (sym_ERR_fb_variables_after_method, 1247),
     (sym_ERR_var_access_not_allowed, 3160), (sym_ERR_var_config_not_allowed, 3160),
     (sym_ERR_var_global_not_allowed, 3160), (sym_ERR_method_decl_in_body, 3150),
     (sym_extern_pragma, 7490), (sym_wasm_pragma, 3150), (sym_warn_pragma, 7490),
     (sym_allow_pragma, 3140), (sym_test_pragma, 7490), (sym_once_pragma, 7490),
     (sym_must_call_pragma, 7490), (sym_export_pragma, 7490), (sym_pou_pragma, 7194),
     (sym_direct_variable, 7675), (sym_deref_expression, 2373), (sym_variable, 7599),
     (sym_var_access, 2373), (sym_in_out_decls, 3160), (sym_var_decls, 3160),
     (sym_retain_var_decls, 3160), (sym_temp_var_decls, 3160), (sym_external_var_decls, 3160),
     (sym_global_var_decls, 2947), (sym_loc_partly_var_decl, 3160), (sym__fb_variables, 2347),
     (sym_fb_input_decls, 3160), (sym_fb_output_decls, 3160), (sym_no_retain_var_decls, 3160),
     (sym_fb_body, 8773), (sym_method_decl, 520), (sym_prog_access_decls, 3043), (sym_SFC, 7970),
     (sym_SFC_network, 7612), (sym_initial_step, 7439), (sym_config_init, 3047),
     (sym_variable_access, 7530), (sym_func_call, 2961), (sym_stmt_list, 7970), (sym__stmt, 2024),
     (sym_assign, 3150), (sym_if_stmt, 3150), (sym_case_stmt, 3150), (sym_for_stmt, 3150),
     (sym_while_stmt, 3150), (sym_repeat_stmt, 3150), (sym_raise_stmt, 3150), (sym_try_stmt, 3150),
     (sym_ERR_clause_outside_try, 3150), (sym_begin_path_expression, 2943), (sym_invocation, 2934),
     (sym_any_invocation, 2935), (sym_this_invocation, 2641), (sym_super_invocation, 2641),
     (sym_super_body_invocation, 2935), (sym_path_expression, 2627), (sym_field_expression, 2373),
     (sym_index_expression, 2373), (sym_ladder_diagram, 7970), (sym_fb_diagram, 7970),
     (aux_sym_ERR_fb_variables_after_method_repeat1, 2347), (aux_sym_func_decl_repeat1, 7194),
     (aux_sym_fb_decl_repeat3, 520), (aux_sym_SFC_repeat1, 7612), (aux_sym_stmt_list_repeat1, 2024),
     (aux_sym_ladder_diagram_repeat1, 8009), (aux_sym_fb_diagram_repeat1, 8013),
     (sym_identifier, 298), (aux_sym_ERR_unexpected_this_in_path_token1, 304),
     (aux_sym_ERR_unexpected_super_in_path_token1, 306), (sym_line_comment, 3),
     (anon_sym_LBRACE, 308), (aux_sym_test_pragma_token1, 9), (aux_sym_once_pragma_token1, 11),
     (aux_sym_must_call_pragma_token1, 13), (aux_sym_export_pragma_token1, 15),
     (anon_sym_SEMI, 310), (anon_sym_PERCENT, 312), (aux_sym_input_decls_token1, 314),
     (aux_sym_output_decls_token1, 316), (aux_sym_in_out_decls_token1, 318),
     (aux_sym_var_decls_token1, 320), (aux_sym_temp_var_decls_token1, 322),
     (aux_sym_external_var_decls_token1, 324), (aux_sym_global_var_decls_token1, 326),
     (aux_sym_fb_decl_token4, 1084), (aux_sym_method_decl_token1, 330),
     (aux_sym_prog_access_decls_token1, 332), (aux_sym_initial_step_token1, 334),
     (aux_sym_config_init_token1, 336), (aux_sym__stmt_token1, 340), (aux_sym__stmt_token2, 340),
     (aux_sym__stmt_token3, 340), (aux_sym_if_stmt_token1, 342), (aux_sym_case_stmt_token1, 344),
     (aux_sym_for_stmt_token1, 346), (aux_sym_while_stmt_token1, 348),
     (aux_sym_repeat_stmt_token1, 350), (aux_sym_raise_stmt_token1, 352),
     (aux_sym_try_stmt_token1, 354), (aux_sym_try_stmt_token2, 356),
     (aux_sym_catch_clause_token1, 356), (aux_sym_finally_clause_token1, 356), (sym_ld_rung, 358),
     (sym_fbd_network, 360), (sym_c_style_comment, 3), (sym_pascal_style_comment, 3),
     (sym_pragma, 3)]"

lemma ts_parse_row_377_scan: "row_scan tokens_63_2 0 ts_parse_row_377 = Some (Suc (Suc (Suc (Suc 0))))"
  unfolding ts_parse_row_377_def by simp

text \<open>Lines 97923 to 98035.\<close>

definition ts_parse_row_378 :: parse_row where
  "ts_parse_row_378 =
    [(sym_ERR_assign_func_call, 7530), (sym_ERR_unexpected_this_in_path, 2372),
     (sym_ERR_unexpected_super_in_path, 2372), (sym_ERR_fb_variables_after_method, 1620),
     (sym_ERR_var_access_not_allowed, 3160), (sym_ERR_var_config_not_allowed, 3160),
     (sym_ERR_var_global_not_allowed, 3160), (sym_ERR_method_decl_in_body, 3150),
     (sym_extern_pragma, 7490), (sym_wasm_pragma, 3150), (sym_warn_pragma, 7490),
     (sym_allow_pragma, 3140), (sym_test_pragma, 7490), (sym_once_pragma, 7490),
     (sym_must_call_pragma, 7490), (sym_export_pragma, 7490), (sym_pou_pragma, 7194),
     (sym_direct_variable, 7675), (sym_deref_expression, 2373), (sym_variable, 7599),
     (sym_var_access, 2373), (sym_in_out_decls, 3160), (sym_var_decls, 3160),
     (sym_retain_var_decls, 3160), (sym_temp_var_decls, 3160), (sym_external_var_decls, 3160),
     (sym_global_var_decls, 2947), (sym_loc_partly_var_decl, 3160), (sym__fb_variables, 2343),
     (sym_fb_input_decls, 3160), (sym_fb_output_decls, 3160), (sym_no_retain_var_decls, 3160),
     (sym_fb_body, 10038), (sym_method_decl, 2549), (sym_prog_access_decls, 3043), (sym_SFC, 7970),
     (sym_SFC_network, 7612), (sym_initial_step, 7439), (sym_config_init, 3047),
     (sym_variable_access, 7530), (sym_func_call, 2961), (sym_stmt_list, 7970), (sym__stmt, 2024),
     (sym_assign, 3150), (sym_if_stmt, 3150), (sym_case_stmt, 3150), (sym_for_stmt, 3150),
     (sym_while_stmt, 3150), (sym_repeat_stmt, 3150), (sym_raise_stmt, 3150), (sym_try_stmt, 3150),
     (sym_ERR_clause_outside_try, 3150), (sym_begin_path_expression, 2943), (sym_invocation, 2934),
     (sym_any_invocation, 2935), (sym_this_invocation, 2641), (sym_super_invocation, 2641),
     (sym_super_body_invocation, 2935), (sym_path_expression, 2627), (sym_field_expression, 2373),
     (sym_index_expression, 2373), (sym_ladder_diagram, 7970), (sym_fb_diagram, 7970),
     (aux_sym_ERR_fb_variables_after_method_repeat1, 2343), (aux_sym_func_decl_repeat1, 7194),
     (aux_sym_fb_decl_repeat3, 2549), (aux_sym_SFC_repeat1, 7612),
     (aux_sym_stmt_list_repeat1, 2024), (aux_sym_ladder_diagram_repeat1, 8009),
     (aux_sym_fb_diagram_repeat1, 8013), (sym_identifier, 298),
     (aux_sym_ERR_unexpected_this_in_path_token1, 304),
     (aux_sym_ERR_unexpected_super_in_path_token1, 306), (sym_line_comment, 3),
     (anon_sym_LBRACE, 308), (aux_sym_test_pragma_token1, 9), (aux_sym_once_pragma_token1, 11),
     (aux_sym_must_call_pragma_token1, 13), (aux_sym_export_pragma_token1, 15),
     (anon_sym_SEMI, 310), (anon_sym_PERCENT, 312), (aux_sym_input_decls_token1, 314),
     (aux_sym_output_decls_token1, 316), (aux_sym_in_out_decls_token1, 318),
     (aux_sym_var_decls_token1, 320), (aux_sym_temp_var_decls_token1, 322),
     (aux_sym_external_var_decls_token1, 324), (aux_sym_global_var_decls_token1, 326),
     (aux_sym_fb_decl_token4, 1086), (aux_sym_method_decl_token1, 330),
     (aux_sym_prog_access_decls_token1, 332), (aux_sym_initial_step_token1, 334),
     (aux_sym_config_init_token1, 336), (aux_sym__stmt_token1, 340), (aux_sym__stmt_token2, 340),
     (aux_sym__stmt_token3, 340), (aux_sym_if_stmt_token1, 342), (aux_sym_case_stmt_token1, 344),
     (aux_sym_for_stmt_token1, 346), (aux_sym_while_stmt_token1, 348),
     (aux_sym_repeat_stmt_token1, 350), (aux_sym_raise_stmt_token1, 352),
     (aux_sym_try_stmt_token1, 354), (aux_sym_try_stmt_token2, 356),
     (aux_sym_catch_clause_token1, 356), (aux_sym_finally_clause_token1, 356), (sym_ld_rung, 358),
     (sym_fbd_network, 360), (sym_c_style_comment, 3), (sym_pascal_style_comment, 3),
     (sym_pragma, 3)]"

lemma ts_parse_row_378_scan: "row_scan tokens_63_2 0 ts_parse_row_378 = Some (Suc (Suc (Suc (Suc 0))))"
  unfolding ts_parse_row_378_def by simp

text \<open>Lines 98036 to 98148.\<close>

definition ts_parse_row_379 :: parse_row where
  "ts_parse_row_379 =
    [(sym_ERR_assign_func_call, 7530), (sym_ERR_unexpected_this_in_path, 2372),
     (sym_ERR_unexpected_super_in_path, 2372), (sym_ERR_fb_variables_after_method, 1464),
     (sym_ERR_var_access_not_allowed, 3160), (sym_ERR_var_config_not_allowed, 3160),
     (sym_ERR_var_global_not_allowed, 3160), (sym_ERR_method_decl_in_body, 3150),
     (sym_extern_pragma, 7490), (sym_wasm_pragma, 3150), (sym_warn_pragma, 7490),
     (sym_allow_pragma, 3140), (sym_test_pragma, 7490), (sym_once_pragma, 7490),
     (sym_must_call_pragma, 7490), (sym_export_pragma, 7490), (sym_pou_pragma, 7194),
     (sym_direct_variable, 7675), (sym_deref_expression, 2373), (sym_variable, 7599),
     (sym_var_access, 2373), (sym_in_out_decls, 3160), (sym_var_decls, 3160),
     (sym_retain_var_decls, 3160), (sym_temp_var_decls, 3160), (sym_external_var_decls, 3160),
     (sym_global_var_decls, 2947), (sym_loc_partly_var_decl, 3160), (sym__fb_variables, 2343),
     (sym_fb_input_decls, 3160), (sym_fb_output_decls, 3160), (sym_no_retain_var_decls, 3160),
     (sym_fb_body, 10519), (sym_method_decl, 2549), (sym_prog_access_decls, 3043), (sym_SFC, 7970),
     (sym_SFC_network, 7612), (sym_initial_step, 7439), (sym_config_init, 3047),
     (sym_variable_access, 7530), (sym_func_call, 2961), (sym_stmt_list, 7970), (sym__stmt, 2024),
     (sym_assign, 3150), (sym_if_stmt, 3150), (sym_case_stmt, 3150), (sym_for_stmt, 3150),
     (sym_while_stmt, 3150), (sym_repeat_stmt, 3150), (sym_raise_stmt, 3150), (sym_try_stmt, 3150),
     (sym_ERR_clause_outside_try, 3150), (sym_begin_path_expression, 2943), (sym_invocation, 2934),
     (sym_any_invocation, 2935), (sym_this_invocation, 2641), (sym_super_invocation, 2641),
     (sym_super_body_invocation, 2935), (sym_path_expression, 2627), (sym_field_expression, 2373),
     (sym_index_expression, 2373), (sym_ladder_diagram, 7970), (sym_fb_diagram, 7970),
     (aux_sym_ERR_fb_variables_after_method_repeat1, 2343), (aux_sym_func_decl_repeat1, 7194),
     (aux_sym_fb_decl_repeat3, 2549), (aux_sym_SFC_repeat1, 7612),
     (aux_sym_stmt_list_repeat1, 2024), (aux_sym_ladder_diagram_repeat1, 8009),
     (aux_sym_fb_diagram_repeat1, 8013), (sym_identifier, 298),
     (aux_sym_ERR_unexpected_this_in_path_token1, 304),
     (aux_sym_ERR_unexpected_super_in_path_token1, 306), (sym_line_comment, 3),
     (anon_sym_LBRACE, 308), (aux_sym_test_pragma_token1, 9), (aux_sym_once_pragma_token1, 11),
     (aux_sym_must_call_pragma_token1, 13), (aux_sym_export_pragma_token1, 15),
     (anon_sym_SEMI, 310), (anon_sym_PERCENT, 312), (aux_sym_input_decls_token1, 314),
     (aux_sym_output_decls_token1, 316), (aux_sym_in_out_decls_token1, 318),
     (aux_sym_var_decls_token1, 320), (aux_sym_temp_var_decls_token1, 322),
     (aux_sym_external_var_decls_token1, 324), (aux_sym_global_var_decls_token1, 326),
     (aux_sym_fb_decl_token4, 1088), (aux_sym_method_decl_token1, 330),
     (aux_sym_prog_access_decls_token1, 332), (aux_sym_initial_step_token1, 334),
     (aux_sym_config_init_token1, 336), (aux_sym__stmt_token1, 340), (aux_sym__stmt_token2, 340),
     (aux_sym__stmt_token3, 340), (aux_sym_if_stmt_token1, 342), (aux_sym_case_stmt_token1, 344),
     (aux_sym_for_stmt_token1, 346), (aux_sym_while_stmt_token1, 348),
     (aux_sym_repeat_stmt_token1, 350), (aux_sym_raise_stmt_token1, 352),
     (aux_sym_try_stmt_token1, 354), (aux_sym_try_stmt_token2, 356),
     (aux_sym_catch_clause_token1, 356), (aux_sym_finally_clause_token1, 356), (sym_ld_rung, 358),
     (sym_fbd_network, 360), (sym_c_style_comment, 3), (sym_pascal_style_comment, 3),
     (sym_pragma, 3)]"

lemma ts_parse_row_379_scan: "row_scan tokens_63_2 0 ts_parse_row_379 = Some (Suc (Suc (Suc (Suc 0))))"
  unfolding ts_parse_row_379_def by simp

text \<open>Lines 98149 to 98261.\<close>

definition ts_parse_row_380 :: parse_row where
  "ts_parse_row_380 =
    [(sym_ERR_assign_func_call, 7530), (sym_ERR_unexpected_this_in_path, 2372),
     (sym_ERR_unexpected_super_in_path, 2372), (sym_ERR_fb_variables_after_method, 1253),
     (sym_ERR_var_access_not_allowed, 3160), (sym_ERR_var_config_not_allowed, 3160),
     (sym_ERR_var_global_not_allowed, 3160), (sym_ERR_method_decl_in_body, 3150),
     (sym_extern_pragma, 7490), (sym_wasm_pragma, 3150), (sym_warn_pragma, 7490),
     (sym_allow_pragma, 3140), (sym_test_pragma, 7490), (sym_once_pragma, 7490),
     (sym_must_call_pragma, 7490), (sym_export_pragma, 7490), (sym_pou_pragma, 7194),
     (sym_direct_variable, 7675), (sym_deref_expression, 2373), (sym_variable, 7599),
     (sym_var_access, 2373), (sym_in_out_decls, 3160), (sym_var_decls, 3160),
     (sym_retain_var_decls, 3160), (sym_temp_var_decls, 3160), (sym_external_var_decls, 3160),
     (sym_global_var_decls, 2947), (sym_loc_partly_var_decl, 3160), (sym__fb_variables, 2343),
     (sym_fb_input_decls, 3160), (sym_fb_output_decls, 3160), (sym_no_retain_var_decls, 3160),
     (sym_fb_body, 8795), (sym_method_decl, 2549), (sym_prog_access_decls, 3043), (sym_SFC, 7970),
     (sym_SFC_network, 7612), (sym_initial_step, 7439), (sym_config_init, 3047),
     (sym_variable_access, 7530), (sym_func_call, 2961), (sym_stmt_list, 7970), (sym__stmt, 2024),
     (sym_assign, 3150), (sym_if_stmt, 3150), (sym_case_stmt, 3150), (sym_for_stmt, 3150),
     (sym_while_stmt, 3150), (sym_repeat_stmt, 3150), (sym_raise_stmt, 3150), (sym_try_stmt, 3150),
     (sym_ERR_clause_outside_try, 3150), (sym_begin_path_expression, 2943), (sym_invocation, 2934),
     (sym_any_invocation, 2935), (sym_this_invocation, 2641), (sym_super_invocation, 2641),
     (sym_super_body_invocation, 2935), (sym_path_expression, 2627), (sym_field_expression, 2373),
     (sym_index_expression, 2373), (sym_ladder_diagram, 7970), (sym_fb_diagram, 7970),
     (aux_sym_ERR_fb_variables_after_method_repeat1, 2343), (aux_sym_func_decl_repeat1, 7194),
     (aux_sym_fb_decl_repeat3, 2549), (aux_sym_SFC_repeat1, 7612),
     (aux_sym_stmt_list_repeat1, 2024), (aux_sym_ladder_diagram_repeat1, 8009),
     (aux_sym_fb_diagram_repeat1, 8013), (sym_identifier, 298),
     (aux_sym_ERR_unexpected_this_in_path_token1, 304),
     (aux_sym_ERR_unexpected_super_in_path_token1, 306), (sym_line_comment, 3),
     (anon_sym_LBRACE, 308), (aux_sym_test_pragma_token1, 9), (aux_sym_once_pragma_token1, 11),
     (aux_sym_must_call_pragma_token1, 13), (aux_sym_export_pragma_token1, 15),
     (anon_sym_SEMI, 310), (anon_sym_PERCENT, 312), (aux_sym_input_decls_token1, 314),
     (aux_sym_output_decls_token1, 316), (aux_sym_in_out_decls_token1, 318),
     (aux_sym_var_decls_token1, 320), (aux_sym_temp_var_decls_token1, 322),
     (aux_sym_external_var_decls_token1, 324), (aux_sym_global_var_decls_token1, 326),
     (aux_sym_fb_decl_token4, 1090), (aux_sym_method_decl_token1, 330),
     (aux_sym_prog_access_decls_token1, 332), (aux_sym_initial_step_token1, 334),
     (aux_sym_config_init_token1, 336), (aux_sym__stmt_token1, 340), (aux_sym__stmt_token2, 340),
     (aux_sym__stmt_token3, 340), (aux_sym_if_stmt_token1, 342), (aux_sym_case_stmt_token1, 344),
     (aux_sym_for_stmt_token1, 346), (aux_sym_while_stmt_token1, 348),
     (aux_sym_repeat_stmt_token1, 350), (aux_sym_raise_stmt_token1, 352),
     (aux_sym_try_stmt_token1, 354), (aux_sym_try_stmt_token2, 356),
     (aux_sym_catch_clause_token1, 356), (aux_sym_finally_clause_token1, 356), (sym_ld_rung, 358),
     (sym_fbd_network, 360), (sym_c_style_comment, 3), (sym_pascal_style_comment, 3),
     (sym_pragma, 3)]"

lemma ts_parse_row_380_scan: "row_scan tokens_63_2 0 ts_parse_row_380 = Some (Suc (Suc (Suc (Suc 0))))"
  unfolding ts_parse_row_380_def by simp

text \<open>Lines 98262 to 98374.\<close>

definition ts_parse_row_381 :: parse_row where
  "ts_parse_row_381 =
    [(sym_ERR_assign_func_call, 7530), (sym_ERR_unexpected_this_in_path, 2372),
     (sym_ERR_unexpected_super_in_path, 2372), (sym_ERR_fb_variables_after_method, 1254),
     (sym_ERR_var_access_not_allowed, 3160), (sym_ERR_var_config_not_allowed, 3160),
     (sym_ERR_var_global_not_allowed, 3160), (sym_ERR_method_decl_in_body, 3150),
     (sym_extern_pragma, 7490), (sym_wasm_pragma, 3150), (sym_warn_pragma, 7490),
     (sym_allow_pragma, 3140), (sym_test_pragma, 7490), (sym_once_pragma, 7490),
     (sym_must_call_pragma, 7490), (sym_export_pragma, 7490), (sym_pou_pragma, 7194),
     (sym_direct_variable, 7675), (sym_deref_expression, 2373), (sym_variable, 7599),
     (sym_var_access, 2373), (sym_in_out_decls, 3160), (sym_var_decls, 3160),
     (sym_retain_var_decls, 3160), (sym_temp_var_decls, 3160), (sym_external_var_decls, 3160),
     (sym_global_var_decls, 2947), (sym_loc_partly_var_decl, 3160), (sym__fb_variables, 2343),
     (sym_fb_input_decls, 3160), (sym_fb_output_decls, 3160), (sym_no_retain_var_decls, 3160),
     (sym_fb_body, 8816), (sym_method_decl, 2549), (sym_prog_access_decls, 3043), (sym_SFC, 7970),
     (sym_SFC_network, 7612), (sym_initial_step, 7439), (sym_config_init, 3047),
     (sym_variable_access, 7530), (sym_func_call, 2961), (sym_stmt_list, 7970), (sym__stmt, 2024),
     (sym_assign, 3150), (sym_if_stmt, 3150), (sym_case_stmt, 3150), (sym_for_stmt, 3150),
     (sym_while_stmt, 3150), (sym_repeat_stmt, 3150), (sym_raise_stmt, 3150), (sym_try_stmt, 3150),
     (sym_ERR_clause_outside_try, 3150), (sym_begin_path_expression, 2943), (sym_invocation, 2934),
     (sym_any_invocation, 2935), (sym_this_invocation, 2641), (sym_super_invocation, 2641),
     (sym_super_body_invocation, 2935), (sym_path_expression, 2627), (sym_field_expression, 2373),
     (sym_index_expression, 2373), (sym_ladder_diagram, 7970), (sym_fb_diagram, 7970),
     (aux_sym_ERR_fb_variables_after_method_repeat1, 2343), (aux_sym_func_decl_repeat1, 7194),
     (aux_sym_fb_decl_repeat3, 2549), (aux_sym_SFC_repeat1, 7612),
     (aux_sym_stmt_list_repeat1, 2024), (aux_sym_ladder_diagram_repeat1, 8009),
     (aux_sym_fb_diagram_repeat1, 8013), (sym_identifier, 298),
     (aux_sym_ERR_unexpected_this_in_path_token1, 304),
     (aux_sym_ERR_unexpected_super_in_path_token1, 306), (sym_line_comment, 3),
     (anon_sym_LBRACE, 308), (aux_sym_test_pragma_token1, 9), (aux_sym_once_pragma_token1, 11),
     (aux_sym_must_call_pragma_token1, 13), (aux_sym_export_pragma_token1, 15),
     (anon_sym_SEMI, 310), (anon_sym_PERCENT, 312), (aux_sym_input_decls_token1, 314),
     (aux_sym_output_decls_token1, 316), (aux_sym_in_out_decls_token1, 318),
     (aux_sym_var_decls_token1, 320), (aux_sym_temp_var_decls_token1, 322),
     (aux_sym_external_var_decls_token1, 324), (aux_sym_global_var_decls_token1, 326),
     (aux_sym_fb_decl_token4, 1092), (aux_sym_method_decl_token1, 330),
     (aux_sym_prog_access_decls_token1, 332), (aux_sym_initial_step_token1, 334),
     (aux_sym_config_init_token1, 336), (aux_sym__stmt_token1, 340), (aux_sym__stmt_token2, 340),
     (aux_sym__stmt_token3, 340), (aux_sym_if_stmt_token1, 342), (aux_sym_case_stmt_token1, 344),
     (aux_sym_for_stmt_token1, 346), (aux_sym_while_stmt_token1, 348),
     (aux_sym_repeat_stmt_token1, 350), (aux_sym_raise_stmt_token1, 352),
     (aux_sym_try_stmt_token1, 354), (aux_sym_try_stmt_token2, 356),
     (aux_sym_catch_clause_token1, 356), (aux_sym_finally_clause_token1, 356), (sym_ld_rung, 358),
     (sym_fbd_network, 360), (sym_c_style_comment, 3), (sym_pascal_style_comment, 3),
     (sym_pragma, 3)]"

lemma ts_parse_row_381_scan: "row_scan tokens_63_2 0 ts_parse_row_381 = Some (Suc (Suc (Suc (Suc 0))))"
  unfolding ts_parse_row_381_def by simp

text \<open>Lines 98375 to 98487.\<close>

definition ts_parse_row_382 :: parse_row where
  "ts_parse_row_382 =
    [(sym_ERR_assign_func_call, 7530), (sym_ERR_unexpected_this_in_path, 2372),
     (sym_ERR_unexpected_super_in_path, 2372), (sym_ERR_fb_variables_after_method, 1255),
     (sym_ERR_var_access_not_allowed, 3160), (sym_ERR_var_config_not_allowed, 3160),
     (sym_ERR_var_global_not_allowed, 3160), (sym_ERR_method_decl_in_body, 3150),
     (sym_extern_pragma, 7490), (sym_wasm_pragma, 3150), (sym_warn_pragma, 7490),
     (sym_allow_pragma, 3140), (sym_test_pragma, 7490), (sym_once_pragma, 7490),
     (sym_must_call_pragma, 7490), (sym_export_pragma, 7490), (sym_pou_pragma, 7194),
     (sym_direct_variable, 7675), (sym_deref_expression, 2373), (sym_variable, 7599),
     (sym_var_access, 2373), (sym_in_out_decls, 3160), (sym_var_decls, 3160),
     (sym_retain_var_decls, 3160), (sym_temp_var_decls, 3160), (sym_external_var_decls, 3160),
     (sym_global_var_decls, 2947), (sym_loc_partly_var_decl, 3160), (sym__fb_variables, 2343),
     (sym_fb_input_decls, 3160), (sym_fb_output_decls, 3160), (sym_no_retain_var_decls, 3160),
     (sym_fb_body, 8835), (sym_method_decl, 2549), (sym_prog_access_decls, 3043), (sym_SFC, 7970),
     (sym_SFC_network, 7612), (sym_initial_step, 7439), (sym_config_init, 3047),
     (sym_variable_access, 7530), (sym_func_call, 2961), (sym_stmt_list, 7970), (sym__stmt, 2024),
     (sym_assign, 3150), (sym_if_stmt, 3150), (sym_case_stmt, 3150), (sym_for_stmt, 3150),
     (sym_while_stmt, 3150), (sym_repeat_stmt, 3150), (sym_raise_stmt, 3150), (sym_try_stmt, 3150),
     (sym_ERR_clause_outside_try, 3150), (sym_begin_path_expression, 2943), (sym_invocation, 2934),
     (sym_any_invocation, 2935), (sym_this_invocation, 2641), (sym_super_invocation, 2641),
     (sym_super_body_invocation, 2935), (sym_path_expression, 2627), (sym_field_expression, 2373),
     (sym_index_expression, 2373), (sym_ladder_diagram, 7970), (sym_fb_diagram, 7970),
     (aux_sym_ERR_fb_variables_after_method_repeat1, 2343), (aux_sym_func_decl_repeat1, 7194),
     (aux_sym_fb_decl_repeat3, 2549), (aux_sym_SFC_repeat1, 7612),
     (aux_sym_stmt_list_repeat1, 2024), (aux_sym_ladder_diagram_repeat1, 8009),
     (aux_sym_fb_diagram_repeat1, 8013), (sym_identifier, 298),
     (aux_sym_ERR_unexpected_this_in_path_token1, 304),
     (aux_sym_ERR_unexpected_super_in_path_token1, 306), (sym_line_comment, 3),
     (anon_sym_LBRACE, 308), (aux_sym_test_pragma_token1, 9), (aux_sym_once_pragma_token1, 11),
     (aux_sym_must_call_pragma_token1, 13), (aux_sym_export_pragma_token1, 15),
     (anon_sym_SEMI, 310), (anon_sym_PERCENT, 312), (aux_sym_input_decls_token1, 314),
     (aux_sym_output_decls_token1, 316), (aux_sym_in_out_decls_token1, 318),
     (aux_sym_var_decls_token1, 320), (aux_sym_temp_var_decls_token1, 322),
     (aux_sym_external_var_decls_token1, 324), (aux_sym_global_var_decls_token1, 326),
     (aux_sym_fb_decl_token4, 1094), (aux_sym_method_decl_token1, 330),
     (aux_sym_prog_access_decls_token1, 332), (aux_sym_initial_step_token1, 334),
     (aux_sym_config_init_token1, 336), (aux_sym__stmt_token1, 340), (aux_sym__stmt_token2, 340),
     (aux_sym__stmt_token3, 340), (aux_sym_if_stmt_token1, 342), (aux_sym_case_stmt_token1, 344),
     (aux_sym_for_stmt_token1, 346), (aux_sym_while_stmt_token1, 348),
     (aux_sym_repeat_stmt_token1, 350), (aux_sym_raise_stmt_token1, 352),
     (aux_sym_try_stmt_token1, 354), (aux_sym_try_stmt_token2, 356),
     (aux_sym_catch_clause_token1, 356), (aux_sym_finally_clause_token1, 356), (sym_ld_rung, 358),
     (sym_fbd_network, 360), (sym_c_style_comment, 3), (sym_pascal_style_comment, 3),
     (sym_pragma, 3)]"

lemma ts_parse_row_382_scan: "row_scan tokens_63_2 0 ts_parse_row_382 = Some (Suc (Suc (Suc (Suc 0))))"
  unfolding ts_parse_row_382_def by simp

text \<open>Lines 98488 to 98600.\<close>

definition ts_parse_row_383 :: parse_row where
  "ts_parse_row_383 =
    [(sym_ERR_assign_func_call, 7530), (sym_ERR_unexpected_this_in_path, 2372),
     (sym_ERR_unexpected_super_in_path, 2372), (sym_ERR_fb_variables_after_method, 1256),
     (sym_ERR_var_access_not_allowed, 3160), (sym_ERR_var_config_not_allowed, 3160),
     (sym_ERR_var_global_not_allowed, 3160), (sym_ERR_method_decl_in_body, 3150),
     (sym_extern_pragma, 7490), (sym_wasm_pragma, 3150), (sym_warn_pragma, 7490),
     (sym_allow_pragma, 3140), (sym_test_pragma, 7490), (sym_once_pragma, 7490),
     (sym_must_call_pragma, 7490), (sym_export_pragma, 7490), (sym_pou_pragma, 7194),
     (sym_direct_variable, 7675), (sym_deref_expression, 2373), (sym_variable, 7599),
     (sym_var_access, 2373), (sym_in_out_decls, 3160), (sym_var_decls, 3160),
     (sym_retain_var_decls, 3160), (sym_temp_var_decls, 3160), (sym_external_var_decls, 3160),
     (sym_global_var_decls, 2947), (sym_loc_partly_var_decl, 3160), (sym__fb_variables, 2347),
     (sym_fb_input_decls, 3160), (sym_fb_output_decls, 3160), (sym_no_retain_var_decls, 3160),
     (sym_fb_body, 8844), (sym_method_decl, 526), (sym_prog_access_decls, 3043), (sym_SFC, 7970),
     (sym_SFC_network, 7612), (sym_initial_step, 7439), (sym_config_init, 3047),
     (sym_variable_access, 7530), (sym_func_call, 2961), (sym_stmt_list, 7970), (sym__stmt, 2024),
     (sym_assign, 3150), (sym_if_stmt, 3150), (sym_case_stmt, 3150), (sym_for_stmt, 3150),
     (sym_while_stmt, 3150), (sym_repeat_stmt, 3150), (sym_raise_stmt, 3150), (sym_try_stmt, 3150),
     (sym_ERR_clause_outside_try, 3150), (sym_begin_path_expression, 2943), (sym_invocation, 2934),
     (sym_any_invocation, 2935), (sym_this_invocation, 2641), (sym_super_invocation, 2641),
     (sym_super_body_invocation, 2935), (sym_path_expression, 2627), (sym_field_expression, 2373),
     (sym_index_expression, 2373), (sym_ladder_diagram, 7970), (sym_fb_diagram, 7970),
     (aux_sym_ERR_fb_variables_after_method_repeat1, 2347), (aux_sym_func_decl_repeat1, 7194),
     (aux_sym_fb_decl_repeat3, 526), (aux_sym_SFC_repeat1, 7612), (aux_sym_stmt_list_repeat1, 2024),
     (aux_sym_ladder_diagram_repeat1, 8009), (aux_sym_fb_diagram_repeat1, 8013),
     (sym_identifier, 298), (aux_sym_ERR_unexpected_this_in_path_token1, 304),
     (aux_sym_ERR_unexpected_super_in_path_token1, 306), (sym_line_comment, 3),
     (anon_sym_LBRACE, 308), (aux_sym_test_pragma_token1, 9), (aux_sym_once_pragma_token1, 11),
     (aux_sym_must_call_pragma_token1, 13), (aux_sym_export_pragma_token1, 15),
     (anon_sym_SEMI, 310), (anon_sym_PERCENT, 312), (aux_sym_input_decls_token1, 314),
     (aux_sym_output_decls_token1, 316), (aux_sym_in_out_decls_token1, 318),
     (aux_sym_var_decls_token1, 320), (aux_sym_temp_var_decls_token1, 322),
     (aux_sym_external_var_decls_token1, 324), (aux_sym_global_var_decls_token1, 326),
     (aux_sym_fb_decl_token4, 1096), (aux_sym_method_decl_token1, 330),
     (aux_sym_prog_access_decls_token1, 332), (aux_sym_initial_step_token1, 334),
     (aux_sym_config_init_token1, 336), (aux_sym__stmt_token1, 340), (aux_sym__stmt_token2, 340),
     (aux_sym__stmt_token3, 340), (aux_sym_if_stmt_token1, 342), (aux_sym_case_stmt_token1, 344),
     (aux_sym_for_stmt_token1, 346), (aux_sym_while_stmt_token1, 348),
     (aux_sym_repeat_stmt_token1, 350), (aux_sym_raise_stmt_token1, 352),
     (aux_sym_try_stmt_token1, 354), (aux_sym_try_stmt_token2, 356),
     (aux_sym_catch_clause_token1, 356), (aux_sym_finally_clause_token1, 356), (sym_ld_rung, 358),
     (sym_fbd_network, 360), (sym_c_style_comment, 3), (sym_pascal_style_comment, 3),
     (sym_pragma, 3)]"

lemma ts_parse_row_383_scan: "row_scan tokens_63_2 0 ts_parse_row_383 = Some (Suc (Suc (Suc (Suc 0))))"
  unfolding ts_parse_row_383_def by simp

text \<open>Lines 98601 to 98713.\<close>

definition ts_parse_row_384 :: parse_row where
  "ts_parse_row_384 =
    [(sym_ERR_assign_func_call, 7530), (sym_ERR_unexpected_this_in_path, 2372),
     (sym_ERR_unexpected_super_in_path, 2372), (sym_ERR_fb_variables_after_method, 1257),
     (sym_ERR_var_access_not_allowed, 3160), (sym_ERR_var_config_not_allowed, 3160),
     (sym_ERR_var_global_not_allowed, 3160), (sym_ERR_method_decl_in_body, 3150),
     (sym_extern_pragma, 7490), (sym_wasm_pragma, 3150), (sym_warn_pragma, 7490),
     (sym_allow_pragma, 3140), (sym_test_pragma, 7490), (sym_once_pragma, 7490),
     (sym_must_call_pragma, 7490), (sym_export_pragma, 7490), (sym_pou_pragma, 7194),
     (sym_direct_variable, 7675), (sym_deref_expression, 2373), (sym_variable, 7599),
     (sym_var_access, 2373), (sym_in_out_decls, 3160), (sym_var_decls, 3160),
     (sym_retain_var_decls, 3160), (sym_temp_var_decls, 3160), (sym_external_var_decls, 3160),
     (sym_global_var_decls, 2947), (sym_loc_partly_var_decl, 3160), (sym__fb_variables, 2343),
     (sym_fb_input_decls, 3160), (sym_fb_output_decls, 3160), (sym_no_retain_var_decls, 3160),
     (sym_fb_body, 8852), (sym_method_decl, 2549), (sym_prog_access_decls, 3043), (sym_SFC, 7970),
     (sym_SFC_network, 7612), (sym_initial_step, 7439), (sym_config_init, 3047),
     (sym_variable_access, 7530), (sym_func_call, 2961), (sym_stmt_list, 7970), (sym__stmt, 2024),
     (sym_assign, 3150), (sym_if_stmt, 3150), (sym_case_stmt, 3150), (sym_for_stmt, 3150),
     (sym_while_stmt, 3150), (sym_repeat_stmt, 3150), (sym_raise_stmt, 3150), (sym_try_stmt, 3150),
     (sym_ERR_clause_outside_try, 3150), (sym_begin_path_expression, 2943), (sym_invocation, 2934),
     (sym_any_invocation, 2935), (sym_this_invocation, 2641), (sym_super_invocation, 2641),
     (sym_super_body_invocation, 2935), (sym_path_expression, 2627), (sym_field_expression, 2373),
     (sym_index_expression, 2373), (sym_ladder_diagram, 7970), (sym_fb_diagram, 7970),
     (aux_sym_ERR_fb_variables_after_method_repeat1, 2343), (aux_sym_func_decl_repeat1, 7194),
     (aux_sym_fb_decl_repeat3, 2549), (aux_sym_SFC_repeat1, 7612),
     (aux_sym_stmt_list_repeat1, 2024), (aux_sym_ladder_diagram_repeat1, 8009),
     (aux_sym_fb_diagram_repeat1, 8013), (sym_identifier, 298),
     (aux_sym_ERR_unexpected_this_in_path_token1, 304),
     (aux_sym_ERR_unexpected_super_in_path_token1, 306), (sym_line_comment, 3),
     (anon_sym_LBRACE, 308), (aux_sym_test_pragma_token1, 9), (aux_sym_once_pragma_token1, 11),
     (aux_sym_must_call_pragma_token1, 13), (aux_sym_export_pragma_token1, 15),
     (anon_sym_SEMI, 310), (anon_sym_PERCENT, 312), (aux_sym_input_decls_token1, 314),
     (aux_sym_output_decls_token1, 316), (aux_sym_in_out_decls_token1, 318),
     (aux_sym_var_decls_token1, 320), (aux_sym_temp_var_decls_token1, 322),
     (aux_sym_external_var_decls_token1, 324), (aux_sym_global_var_decls_token1, 326),
     (aux_sym_fb_decl_token4, 1098), (aux_sym_method_decl_token1, 330),
     (aux_sym_prog_access_decls_token1, 332), (aux_sym_initial_step_token1, 334),
     (aux_sym_config_init_token1, 336), (aux_sym__stmt_token1, 340), (aux_sym__stmt_token2, 340),
     (aux_sym__stmt_token3, 340), (aux_sym_if_stmt_token1, 342), (aux_sym_case_stmt_token1, 344),
     (aux_sym_for_stmt_token1, 346), (aux_sym_while_stmt_token1, 348),
     (aux_sym_repeat_stmt_token1, 350), (aux_sym_raise_stmt_token1, 352),
     (aux_sym_try_stmt_token1, 354), (aux_sym_try_stmt_token2, 356),
     (aux_sym_catch_clause_token1, 356), (aux_sym_finally_clause_token1, 356), (sym_ld_rung, 358),
     (sym_fbd_network, 360), (sym_c_style_comment, 3), (sym_pascal_style_comment, 3),
     (sym_pragma, 3)]"

lemma ts_parse_row_384_scan: "row_scan tokens_63_2 0 ts_parse_row_384 = Some (Suc (Suc (Suc (Suc 0))))"
  unfolding ts_parse_row_384_def by simp

text \<open>Lines 98714 to 98826.\<close>

definition ts_parse_row_385 :: parse_row where
  "ts_parse_row_385 =
    [(sym_ERR_assign_func_call, 7530), (sym_ERR_unexpected_this_in_path, 2372),
     (sym_ERR_unexpected_super_in_path, 2372), (sym_ERR_fb_variables_after_method, 1258),
     (sym_ERR_var_access_not_allowed, 3160), (sym_ERR_var_config_not_allowed, 3160),
     (sym_ERR_var_global_not_allowed, 3160), (sym_ERR_method_decl_in_body, 3150),
     (sym_extern_pragma, 7490), (sym_wasm_pragma, 3150), (sym_warn_pragma, 7490),
     (sym_allow_pragma, 3140), (sym_test_pragma, 7490), (sym_once_pragma, 7490),
     (sym_must_call_pragma, 7490), (sym_export_pragma, 7490), (sym_pou_pragma, 7194),
     (sym_direct_variable, 7675), (sym_deref_expression, 2373), (sym_variable, 7599),
     (sym_var_access, 2373), (sym_in_out_decls, 3160), (sym_var_decls, 3160),
     (sym_retain_var_decls, 3160), (sym_temp_var_decls, 3160), (sym_external_var_decls, 3160),
     (sym_global_var_decls, 2947), (sym_loc_partly_var_decl, 3160), (sym__fb_variables, 2343),
     (sym_fb_input_decls, 3160), (sym_fb_output_decls, 3160), (sym_no_retain_var_decls, 3160),
     (sym_fb_body, 8888), (sym_method_decl, 2549), (sym_prog_access_decls, 3043), (sym_SFC, 7970),
     (sym_SFC_network, 7612), (sym_initial_step, 7439), (sym_config_init, 3047),
     (sym_variable_access, 7530), (sym_func_call, 2961), (sym_stmt_list, 7970), (sym__stmt, 2024),
     (sym_assign, 3150), (sym_if_stmt, 3150), (sym_case_stmt, 3150), (sym_for_stmt, 3150),
     (sym_while_stmt, 3150), (sym_repeat_stmt, 3150), (sym_raise_stmt, 3150), (sym_try_stmt, 3150),
     (sym_ERR_clause_outside_try, 3150), (sym_begin_path_expression, 2943), (sym_invocation, 2934),
     (sym_any_invocation, 2935), (sym_this_invocation, 2641), (sym_super_invocation, 2641),
     (sym_super_body_invocation, 2935), (sym_path_expression, 2627), (sym_field_expression, 2373),
     (sym_index_expression, 2373), (sym_ladder_diagram, 7970), (sym_fb_diagram, 7970),
     (aux_sym_ERR_fb_variables_after_method_repeat1, 2343), (aux_sym_func_decl_repeat1, 7194),
     (aux_sym_fb_decl_repeat3, 2549), (aux_sym_SFC_repeat1, 7612),
     (aux_sym_stmt_list_repeat1, 2024), (aux_sym_ladder_diagram_repeat1, 8009),
     (aux_sym_fb_diagram_repeat1, 8013), (sym_identifier, 298),
     (aux_sym_ERR_unexpected_this_in_path_token1, 304),
     (aux_sym_ERR_unexpected_super_in_path_token1, 306), (sym_line_comment, 3),
     (anon_sym_LBRACE, 308), (aux_sym_test_pragma_token1, 9), (aux_sym_once_pragma_token1, 11),
     (aux_sym_must_call_pragma_token1, 13), (aux_sym_export_pragma_token1, 15),
     (anon_sym_SEMI, 310), (anon_sym_PERCENT, 312), (aux_sym_input_decls_token1, 314),
     (aux_sym_output_decls_token1, 316), (aux_sym_in_out_decls_token1, 318),
     (aux_sym_var_decls_token1, 320), (aux_sym_temp_var_decls_token1, 322),
     (aux_sym_external_var_decls_token1, 324), (aux_sym_global_var_decls_token1, 326),
     (aux_sym_fb_decl_token4, 1100), (aux_sym_method_decl_token1, 330),
     (aux_sym_prog_access_decls_token1, 332), (aux_sym_initial_step_token1, 334),
     (aux_sym_config_init_token1, 336), (aux_sym__stmt_token1, 340), (aux_sym__stmt_token2, 340),
     (aux_sym__stmt_token3, 340), (aux_sym_if_stmt_token1, 342), (aux_sym_case_stmt_token1, 344),
     (aux_sym_for_stmt_token1, 346), (aux_sym_while_stmt_token1, 348),
     (aux_sym_repeat_stmt_token1, 350), (aux_sym_raise_stmt_token1, 352),
     (aux_sym_try_stmt_token1, 354), (aux_sym_try_stmt_token2, 356),
     (aux_sym_catch_clause_token1, 356), (aux_sym_finally_clause_token1, 356), (sym_ld_rung, 358),
     (sym_fbd_network, 360), (sym_c_style_comment, 3), (sym_pascal_style_comment, 3),
     (sym_pragma, 3)]"

lemma ts_parse_row_385_scan: "row_scan tokens_63_2 0 ts_parse_row_385 = Some (Suc (Suc (Suc (Suc 0))))"
  unfolding ts_parse_row_385_def by simp

text \<open>Lines 98827 to 98939.\<close>

definition ts_parse_row_386 :: parse_row where
  "ts_parse_row_386 =
    [(sym_ERR_assign_func_call, 7530), (sym_ERR_unexpected_this_in_path, 2372),
     (sym_ERR_unexpected_super_in_path, 2372), (sym_ERR_fb_variables_after_method, 1259),
     (sym_ERR_var_access_not_allowed, 3160), (sym_ERR_var_config_not_allowed, 3160),
     (sym_ERR_var_global_not_allowed, 3160), (sym_ERR_method_decl_in_body, 3150),
     (sym_extern_pragma, 7490), (sym_wasm_pragma, 3150), (sym_warn_pragma, 7490),
     (sym_allow_pragma, 3140), (sym_test_pragma, 7490), (sym_once_pragma, 7490),
     (sym_must_call_pragma, 7490), (sym_export_pragma, 7490), (sym_pou_pragma, 7194),
     (sym_direct_variable, 7675), (sym_deref_expression, 2373), (sym_variable, 7599),
     (sym_var_access, 2373), (sym_in_out_decls, 3160), (sym_var_decls, 3160),
     (sym_retain_var_decls, 3160), (sym_temp_var_decls, 3160), (sym_external_var_decls, 3160),
     (sym_global_var_decls, 2947), (sym_loc_partly_var_decl, 3160), (sym__fb_variables, 2343),
     (sym_fb_input_decls, 3160), (sym_fb_output_decls, 3160), (sym_no_retain_var_decls, 3160),
     (sym_fb_body, 8906), (sym_method_decl, 2549), (sym_prog_access_decls, 3043), (sym_SFC, 7970),
     (sym_SFC_network, 7612), (sym_initial_step, 7439), (sym_config_init, 3047),
     (sym_variable_access, 7530), (sym_func_call, 2961), (sym_stmt_list, 7970), (sym__stmt, 2024),
     (sym_assign, 3150), (sym_if_stmt, 3150), (sym_case_stmt, 3150), (sym_for_stmt, 3150),
     (sym_while_stmt, 3150), (sym_repeat_stmt, 3150), (sym_raise_stmt, 3150), (sym_try_stmt, 3150),
     (sym_ERR_clause_outside_try, 3150), (sym_begin_path_expression, 2943), (sym_invocation, 2934),
     (sym_any_invocation, 2935), (sym_this_invocation, 2641), (sym_super_invocation, 2641),
     (sym_super_body_invocation, 2935), (sym_path_expression, 2627), (sym_field_expression, 2373),
     (sym_index_expression, 2373), (sym_ladder_diagram, 7970), (sym_fb_diagram, 7970),
     (aux_sym_ERR_fb_variables_after_method_repeat1, 2343), (aux_sym_func_decl_repeat1, 7194),
     (aux_sym_fb_decl_repeat3, 2549), (aux_sym_SFC_repeat1, 7612),
     (aux_sym_stmt_list_repeat1, 2024), (aux_sym_ladder_diagram_repeat1, 8009),
     (aux_sym_fb_diagram_repeat1, 8013), (sym_identifier, 298),
     (aux_sym_ERR_unexpected_this_in_path_token1, 304),
     (aux_sym_ERR_unexpected_super_in_path_token1, 306), (sym_line_comment, 3),
     (anon_sym_LBRACE, 308), (aux_sym_test_pragma_token1, 9), (aux_sym_once_pragma_token1, 11),
     (aux_sym_must_call_pragma_token1, 13), (aux_sym_export_pragma_token1, 15),
     (anon_sym_SEMI, 310), (anon_sym_PERCENT, 312), (aux_sym_input_decls_token1, 314),
     (aux_sym_output_decls_token1, 316), (aux_sym_in_out_decls_token1, 318),
     (aux_sym_var_decls_token1, 320), (aux_sym_temp_var_decls_token1, 322),
     (aux_sym_external_var_decls_token1, 324), (aux_sym_global_var_decls_token1, 326),
     (aux_sym_fb_decl_token4, 1102), (aux_sym_method_decl_token1, 330),
     (aux_sym_prog_access_decls_token1, 332), (aux_sym_initial_step_token1, 334),
     (aux_sym_config_init_token1, 336), (aux_sym__stmt_token1, 340), (aux_sym__stmt_token2, 340),
     (aux_sym__stmt_token3, 340), (aux_sym_if_stmt_token1, 342), (aux_sym_case_stmt_token1, 344),
     (aux_sym_for_stmt_token1, 346), (aux_sym_while_stmt_token1, 348),
     (aux_sym_repeat_stmt_token1, 350), (aux_sym_raise_stmt_token1, 352),
     (aux_sym_try_stmt_token1, 354), (aux_sym_try_stmt_token2, 356),
     (aux_sym_catch_clause_token1, 356), (aux_sym_finally_clause_token1, 356), (sym_ld_rung, 358),
     (sym_fbd_network, 360), (sym_c_style_comment, 3), (sym_pascal_style_comment, 3),
     (sym_pragma, 3)]"

lemma ts_parse_row_386_scan: "row_scan tokens_63_2 0 ts_parse_row_386 = Some (Suc (Suc (Suc (Suc 0))))"
  unfolding ts_parse_row_386_def by simp

text \<open>Lines 98940 to 99052.\<close>

definition ts_parse_row_387 :: parse_row where
  "ts_parse_row_387 =
    [(sym_ERR_assign_func_call, 7530), (sym_ERR_unexpected_this_in_path, 2372),
     (sym_ERR_unexpected_super_in_path, 2372), (sym_ERR_fb_variables_after_method, 1260),
     (sym_ERR_var_access_not_allowed, 3160), (sym_ERR_var_config_not_allowed, 3160),
     (sym_ERR_var_global_not_allowed, 3160), (sym_ERR_method_decl_in_body, 3150),
     (sym_extern_pragma, 7490), (sym_wasm_pragma, 3150), (sym_warn_pragma, 7490),
     (sym_allow_pragma, 3140), (sym_test_pragma, 7490), (sym_once_pragma, 7490),
     (sym_must_call_pragma, 7490), (sym_export_pragma, 7490), (sym_pou_pragma, 7194),
     (sym_direct_variable, 7675), (sym_deref_expression, 2373), (sym_variable, 7599),
     (sym_var_access, 2373), (sym_in_out_decls, 3160), (sym_var_decls, 3160),
     (sym_retain_var_decls, 3160), (sym_temp_var_decls, 3160), (sym_external_var_decls, 3160),
     (sym_global_var_decls, 2947), (sym_loc_partly_var_decl, 3160), (sym__fb_variables, 2347),
     (sym_fb_input_decls, 3160), (sym_fb_output_decls, 3160), (sym_no_retain_var_decls, 3160),
     (sym_fb_body, 8916), (sym_method_decl, 527), (sym_prog_access_decls, 3043), (sym_SFC, 7970),
     (sym_SFC_network, 7612), (sym_initial_step, 7439), (sym_config_init, 3047),
     (sym_variable_access, 7530), (sym_func_call, 2961), (sym_stmt_list, 7970), (sym__stmt, 2024),
     (sym_assign, 3150), (sym_if_stmt, 3150), (sym_case_stmt, 3150), (sym_for_stmt, 3150),
     (sym_while_stmt, 3150), (sym_repeat_stmt, 3150), (sym_raise_stmt, 3150), (sym_try_stmt, 3150),
     (sym_ERR_clause_outside_try, 3150), (sym_begin_path_expression, 2943), (sym_invocation, 2934),
     (sym_any_invocation, 2935), (sym_this_invocation, 2641), (sym_super_invocation, 2641),
     (sym_super_body_invocation, 2935), (sym_path_expression, 2627), (sym_field_expression, 2373),
     (sym_index_expression, 2373), (sym_ladder_diagram, 7970), (sym_fb_diagram, 7970),
     (aux_sym_ERR_fb_variables_after_method_repeat1, 2347), (aux_sym_func_decl_repeat1, 7194),
     (aux_sym_fb_decl_repeat3, 527), (aux_sym_SFC_repeat1, 7612), (aux_sym_stmt_list_repeat1, 2024),
     (aux_sym_ladder_diagram_repeat1, 8009), (aux_sym_fb_diagram_repeat1, 8013),
     (sym_identifier, 298), (aux_sym_ERR_unexpected_this_in_path_token1, 304),
     (aux_sym_ERR_unexpected_super_in_path_token1, 306), (sym_line_comment, 3),
     (anon_sym_LBRACE, 308), (aux_sym_test_pragma_token1, 9), (aux_sym_once_pragma_token1, 11),
     (aux_sym_must_call_pragma_token1, 13), (aux_sym_export_pragma_token1, 15),
     (anon_sym_SEMI, 310), (anon_sym_PERCENT, 312), (aux_sym_input_decls_token1, 314),
     (aux_sym_output_decls_token1, 316), (aux_sym_in_out_decls_token1, 318),
     (aux_sym_var_decls_token1, 320), (aux_sym_temp_var_decls_token1, 322),
     (aux_sym_external_var_decls_token1, 324), (aux_sym_global_var_decls_token1, 326),
     (aux_sym_fb_decl_token4, 1104), (aux_sym_method_decl_token1, 330),
     (aux_sym_prog_access_decls_token1, 332), (aux_sym_initial_step_token1, 334),
     (aux_sym_config_init_token1, 336), (aux_sym__stmt_token1, 340), (aux_sym__stmt_token2, 340),
     (aux_sym__stmt_token3, 340), (aux_sym_if_stmt_token1, 342), (aux_sym_case_stmt_token1, 344),
     (aux_sym_for_stmt_token1, 346), (aux_sym_while_stmt_token1, 348),
     (aux_sym_repeat_stmt_token1, 350), (aux_sym_raise_stmt_token1, 352),
     (aux_sym_try_stmt_token1, 354), (aux_sym_try_stmt_token2, 356),
     (aux_sym_catch_clause_token1, 356), (aux_sym_finally_clause_token1, 356), (sym_ld_rung, 358),
     (sym_fbd_network, 360), (sym_c_style_comment, 3), (sym_pascal_style_comment, 3),
     (sym_pragma, 3)]"

lemma ts_parse_row_387_scan: "row_scan tokens_63_2 0 ts_parse_row_387 = Some (Suc (Suc (Suc (Suc 0))))"
  unfolding ts_parse_row_387_def by simp

text \<open>Lines 99053 to 99165.\<close>

definition ts_parse_row_388 :: parse_row where
  "ts_parse_row_388 =
    [(sym_ERR_assign_func_call, 7530), (sym_ERR_unexpected_this_in_path, 2372),
     (sym_ERR_unexpected_super_in_path, 2372), (sym_ERR_fb_variables_after_method, 1262),
     (sym_ERR_var_access_not_allowed, 3160), (sym_ERR_var_config_not_allowed, 3160),
     (sym_ERR_var_global_not_allowed, 3160), (sym_ERR_method_decl_in_body, 3150),
     (sym_extern_pragma, 7490), (sym_wasm_pragma, 3150), (sym_warn_pragma, 7490),
     (sym_allow_pragma, 3140), (sym_test_pragma, 7490), (sym_once_pragma, 7490),
     (sym_must_call_pragma, 7490), (sym_export_pragma, 7490), (sym_pou_pragma, 7194),
     (sym_direct_variable, 7675), (sym_deref_expression, 2373), (sym_variable, 7599),
     (sym_var_access, 2373), (sym_in_out_decls, 3160), (sym_var_decls, 3160),
     (sym_retain_var_decls, 3160), (sym_temp_var_decls, 3160), (sym_external_var_decls, 3160),
     (sym_global_var_decls, 2947), (sym_loc_partly_var_decl, 3160), (sym__fb_variables, 2343),
     (sym_fb_input_decls, 3160), (sym_fb_output_decls, 3160), (sym_no_retain_var_decls, 3160),
     (sym_fb_body, 8924), (sym_method_decl, 2549), (sym_prog_access_decls, 3043), (sym_SFC, 7970),
     (sym_SFC_network, 7612), (sym_initial_step, 7439), (sym_config_init, 3047),
     (sym_variable_access, 7530), (sym_func_call, 2961), (sym_stmt_list, 7970), (sym__stmt, 2024),
     (sym_assign, 3150), (sym_if_stmt, 3150), (sym_case_stmt, 3150), (sym_for_stmt, 3150),
     (sym_while_stmt, 3150), (sym_repeat_stmt, 3150), (sym_raise_stmt, 3150), (sym_try_stmt, 3150),
     (sym_ERR_clause_outside_try, 3150), (sym_begin_path_expression, 2943), (sym_invocation, 2934),
     (sym_any_invocation, 2935), (sym_this_invocation, 2641), (sym_super_invocation, 2641),
     (sym_super_body_invocation, 2935), (sym_path_expression, 2627), (sym_field_expression, 2373),
     (sym_index_expression, 2373), (sym_ladder_diagram, 7970), (sym_fb_diagram, 7970),
     (aux_sym_ERR_fb_variables_after_method_repeat1, 2343), (aux_sym_func_decl_repeat1, 7194),
     (aux_sym_fb_decl_repeat3, 2549), (aux_sym_SFC_repeat1, 7612),
     (aux_sym_stmt_list_repeat1, 2024), (aux_sym_ladder_diagram_repeat1, 8009),
     (aux_sym_fb_diagram_repeat1, 8013), (sym_identifier, 298),
     (aux_sym_ERR_unexpected_this_in_path_token1, 304),
     (aux_sym_ERR_unexpected_super_in_path_token1, 306), (sym_line_comment, 3),
     (anon_sym_LBRACE, 308), (aux_sym_test_pragma_token1, 9), (aux_sym_once_pragma_token1, 11),
     (aux_sym_must_call_pragma_token1, 13), (aux_sym_export_pragma_token1, 15),
     (anon_sym_SEMI, 310), (anon_sym_PERCENT, 312), (aux_sym_input_decls_token1, 314),
     (aux_sym_output_decls_token1, 316), (aux_sym_in_out_decls_token1, 318),
     (aux_sym_var_decls_token1, 320), (aux_sym_temp_var_decls_token1, 322),
     (aux_sym_external_var_decls_token1, 324), (aux_sym_global_var_decls_token1, 326),
     (aux_sym_fb_decl_token4, 1106), (aux_sym_method_decl_token1, 330),
     (aux_sym_prog_access_decls_token1, 332), (aux_sym_initial_step_token1, 334),
     (aux_sym_config_init_token1, 336), (aux_sym__stmt_token1, 340), (aux_sym__stmt_token2, 340),
     (aux_sym__stmt_token3, 340), (aux_sym_if_stmt_token1, 342), (aux_sym_case_stmt_token1, 344),
     (aux_sym_for_stmt_token1, 346), (aux_sym_while_stmt_token1, 348),
     (aux_sym_repeat_stmt_token1, 350), (aux_sym_raise_stmt_token1, 352),
     (aux_sym_try_stmt_token1, 354), (aux_sym_try_stmt_token2, 356),
     (aux_sym_catch_clause_token1, 356), (aux_sym_finally_clause_token1, 356), (sym_ld_rung, 358),
     (sym_fbd_network, 360), (sym_c_style_comment, 3), (sym_pascal_style_comment, 3),
     (sym_pragma, 3)]"

lemma ts_parse_row_388_scan: "row_scan tokens_63_2 0 ts_parse_row_388 = Some (Suc (Suc (Suc (Suc 0))))"
  unfolding ts_parse_row_388_def by simp

text \<open>Lines 99166 to 99278.\<close>

definition ts_parse_row_389 :: parse_row where
  "ts_parse_row_389 =
    [(sym_ERR_assign_func_call, 7530), (sym_ERR_unexpected_this_in_path, 2372),
     (sym_ERR_unexpected_super_in_path, 2372), (sym_ERR_fb_variables_after_method, 1263),
     (sym_ERR_var_access_not_allowed, 3160), (sym_ERR_var_config_not_allowed, 3160),
     (sym_ERR_var_global_not_allowed, 3160), (sym_ERR_method_decl_in_body, 3150),
     (sym_extern_pragma, 7490), (sym_wasm_pragma, 3150), (sym_warn_pragma, 7490),
     (sym_allow_pragma, 3140), (sym_test_pragma, 7490), (sym_once_pragma, 7490),
     (sym_must_call_pragma, 7490), (sym_export_pragma, 7490), (sym_pou_pragma, 7194),
     (sym_direct_variable, 7675), (sym_deref_expression, 2373), (sym_variable, 7599),
     (sym_var_access, 2373), (sym_in_out_decls, 3160), (sym_var_decls, 3160),
     (sym_retain_var_decls, 3160), (sym_temp_var_decls, 3160), (sym_external_var_decls, 3160),
     (sym_global_var_decls, 2947), (sym_loc_partly_var_decl, 3160), (sym__fb_variables, 2347),
     (sym_fb_input_decls, 3160), (sym_fb_output_decls, 3160), (sym_no_retain_var_decls, 3160),
     (sym_fb_body, 8939), (sym_method_decl, 528), (sym_prog_access_decls, 3043), (sym_SFC, 7970),
     (sym_SFC_network, 7612), (sym_initial_step, 7439), (sym_config_init, 3047),
     (sym_variable_access, 7530), (sym_func_call, 2961), (sym_stmt_list, 7970), (sym__stmt, 2024),
     (sym_assign, 3150), (sym_if_stmt, 3150), (sym_case_stmt, 3150), (sym_for_stmt, 3150),
     (sym_while_stmt, 3150), (sym_repeat_stmt, 3150), (sym_raise_stmt, 3150), (sym_try_stmt, 3150),
     (sym_ERR_clause_outside_try, 3150), (sym_begin_path_expression, 2943), (sym_invocation, 2934),
     (sym_any_invocation, 2935), (sym_this_invocation, 2641), (sym_super_invocation, 2641),
     (sym_super_body_invocation, 2935), (sym_path_expression, 2627), (sym_field_expression, 2373),
     (sym_index_expression, 2373), (sym_ladder_diagram, 7970), (sym_fb_diagram, 7970),
     (aux_sym_ERR_fb_variables_after_method_repeat1, 2347), (aux_sym_func_decl_repeat1, 7194),
     (aux_sym_fb_decl_repeat3, 528), (aux_sym_SFC_repeat1, 7612), (aux_sym_stmt_list_repeat1, 2024),
     (aux_sym_ladder_diagram_repeat1, 8009), (aux_sym_fb_diagram_repeat1, 8013),
     (sym_identifier, 298), (aux_sym_ERR_unexpected_this_in_path_token1, 304),
     (aux_sym_ERR_unexpected_super_in_path_token1, 306), (sym_line_comment, 3),
     (anon_sym_LBRACE, 308), (aux_sym_test_pragma_token1, 9), (aux_sym_once_pragma_token1, 11),
     (aux_sym_must_call_pragma_token1, 13), (aux_sym_export_pragma_token1, 15),
     (anon_sym_SEMI, 310), (anon_sym_PERCENT, 312), (aux_sym_input_decls_token1, 314),
     (aux_sym_output_decls_token1, 316), (aux_sym_in_out_decls_token1, 318),
     (aux_sym_var_decls_token1, 320), (aux_sym_temp_var_decls_token1, 322),
     (aux_sym_external_var_decls_token1, 324), (aux_sym_global_var_decls_token1, 326),
     (aux_sym_fb_decl_token4, 1108), (aux_sym_method_decl_token1, 330),
     (aux_sym_prog_access_decls_token1, 332), (aux_sym_initial_step_token1, 334),
     (aux_sym_config_init_token1, 336), (aux_sym__stmt_token1, 340), (aux_sym__stmt_token2, 340),
     (aux_sym__stmt_token3, 340), (aux_sym_if_stmt_token1, 342), (aux_sym_case_stmt_token1, 344),
     (aux_sym_for_stmt_token1, 346), (aux_sym_while_stmt_token1, 348),
     (aux_sym_repeat_stmt_token1, 350), (aux_sym_raise_stmt_token1, 352),
     (aux_sym_try_stmt_token1, 354), (aux_sym_try_stmt_token2, 356),
     (aux_sym_catch_clause_token1, 356), (aux_sym_finally_clause_token1, 356), (sym_ld_rung, 358),
     (sym_fbd_network, 360), (sym_c_style_comment, 3), (sym_pascal_style_comment, 3),
     (sym_pragma, 3)]"

lemma ts_parse_row_389_scan: "row_scan tokens_63_2 0 ts_parse_row_389 = Some (Suc (Suc (Suc (Suc 0))))"
  unfolding ts_parse_row_389_def by simp

text \<open>Lines 99279 to 99391.\<close>

definition ts_parse_row_390 :: parse_row where
  "ts_parse_row_390 =
    [(sym_ERR_assign_func_call, 7530), (sym_ERR_unexpected_this_in_path, 2372),
     (sym_ERR_unexpected_super_in_path, 2372), (sym_ERR_fb_variables_after_method, 1466),
     (sym_ERR_var_access_not_allowed, 3160), (sym_ERR_var_config_not_allowed, 3160),
     (sym_ERR_var_global_not_allowed, 3160), (sym_ERR_method_decl_in_body, 3150),
     (sym_extern_pragma, 7490), (sym_wasm_pragma, 3150), (sym_warn_pragma, 7490),
     (sym_allow_pragma, 3140), (sym_test_pragma, 7490), (sym_once_pragma, 7490),
     (sym_must_call_pragma, 7490), (sym_export_pragma, 7490), (sym_pou_pragma, 7194),
     (sym_direct_variable, 7675), (sym_deref_expression, 2373), (sym_variable, 7599),
     (sym_var_access, 2373), (sym_in_out_decls, 3160), (sym_var_decls, 3160),
     (sym_retain_var_decls, 3160), (sym_temp_var_decls, 3160), (sym_external_var_decls, 3160),
     (sym_global_var_decls, 2947), (sym_loc_partly_var_decl, 3160), (sym__fb_variables, 2347),
     (sym_fb_input_decls, 3160), (sym_fb_output_decls, 3160), (sym_no_retain_var_decls, 3160),
     (sym_fb_body, 8228), (sym_method_decl, 319), (sym_prog_access_decls, 3043), (sym_SFC, 7970),
     (sym_SFC_network, 7612), (sym_initial_step, 7439), (sym_config_init, 3047),
     (sym_variable_access, 7530), (sym_func_call, 2961), (sym_stmt_list, 7970), (sym__stmt, 2024),
     (sym_assign, 3150), (sym_if_stmt, 3150), (sym_case_stmt, 3150), (sym_for_stmt, 3150),
     (sym_while_stmt, 3150), (sym_repeat_stmt, 3150), (sym_raise_stmt, 3150), (sym_try_stmt, 3150),
     (sym_ERR_clause_outside_try, 3150), (sym_begin_path_expression, 2943), (sym_invocation, 2934),
     (sym_any_invocation, 2935), (sym_this_invocation, 2641), (sym_super_invocation, 2641),
     (sym_super_body_invocation, 2935), (sym_path_expression, 2627), (sym_field_expression, 2373),
     (sym_index_expression, 2373), (sym_ladder_diagram, 7970), (sym_fb_diagram, 7970),
     (aux_sym_ERR_fb_variables_after_method_repeat1, 2347), (aux_sym_func_decl_repeat1, 7194),
     (aux_sym_fb_decl_repeat3, 319), (aux_sym_SFC_repeat1, 7612), (aux_sym_stmt_list_repeat1, 2024),
     (aux_sym_ladder_diagram_repeat1, 8009), (aux_sym_fb_diagram_repeat1, 8013),
     (sym_identifier, 298), (aux_sym_ERR_unexpected_this_in_path_token1, 304),
     (aux_sym_ERR_unexpected_super_in_path_token1, 306), (sym_line_comment, 3),
     (anon_sym_LBRACE, 308), (aux_sym_test_pragma_token1, 9), (aux_sym_once_pragma_token1, 11),
     (aux_sym_must_call_pragma_token1, 13), (aux_sym_export_pragma_token1, 15),
     (anon_sym_SEMI, 310), (anon_sym_PERCENT, 312), (aux_sym_input_decls_token1, 314),
     (aux_sym_output_decls_token1, 316), (aux_sym_in_out_decls_token1, 318),
     (aux_sym_var_decls_token1, 320), (aux_sym_temp_var_decls_token1, 322),
     (aux_sym_external_var_decls_token1, 324), (aux_sym_global_var_decls_token1, 326),
     (aux_sym_fb_decl_token4, 1110), (aux_sym_method_decl_token1, 330),
     (aux_sym_prog_access_decls_token1, 332), (aux_sym_initial_step_token1, 334),
     (aux_sym_config_init_token1, 336), (aux_sym__stmt_token1, 340), (aux_sym__stmt_token2, 340),
     (aux_sym__stmt_token3, 340), (aux_sym_if_stmt_token1, 342), (aux_sym_case_stmt_token1, 344),
     (aux_sym_for_stmt_token1, 346), (aux_sym_while_stmt_token1, 348),
     (aux_sym_repeat_stmt_token1, 350), (aux_sym_raise_stmt_token1, 352),
     (aux_sym_try_stmt_token1, 354), (aux_sym_try_stmt_token2, 356),
     (aux_sym_catch_clause_token1, 356), (aux_sym_finally_clause_token1, 356), (sym_ld_rung, 358),
     (sym_fbd_network, 360), (sym_c_style_comment, 3), (sym_pascal_style_comment, 3),
     (sym_pragma, 3)]"

lemma ts_parse_row_390_scan: "row_scan tokens_63_2 0 ts_parse_row_390 = Some (Suc (Suc (Suc (Suc 0))))"
  unfolding ts_parse_row_390_def by simp

text \<open>Lines 99392 to 99504.\<close>

definition ts_parse_row_391 :: parse_row where
  "ts_parse_row_391 =
    [(sym_ERR_assign_func_call, 7530), (sym_ERR_unexpected_this_in_path, 2372),
     (sym_ERR_unexpected_super_in_path, 2372), (sym_ERR_fb_variables_after_method, 1472),
     (sym_ERR_var_access_not_allowed, 3160), (sym_ERR_var_config_not_allowed, 3160),
     (sym_ERR_var_global_not_allowed, 3160), (sym_ERR_method_decl_in_body, 3150),
     (sym_extern_pragma, 7490), (sym_wasm_pragma, 3150), (sym_warn_pragma, 7490),
     (sym_allow_pragma, 3140), (sym_test_pragma, 7490), (sym_once_pragma, 7490),
     (sym_must_call_pragma, 7490), (sym_export_pragma, 7490), (sym_pou_pragma, 7194),
     (sym_direct_variable, 7675), (sym_deref_expression, 2373), (sym_variable, 7599),
     (sym_var_access, 2373), (sym_in_out_decls, 3160), (sym_var_decls, 3160),
     (sym_retain_var_decls, 3160), (sym_temp_var_decls, 3160), (sym_external_var_decls, 3160),
     (sym_global_var_decls, 2947), (sym_loc_partly_var_decl, 3160), (sym__fb_variables, 2343),
     (sym_fb_input_decls, 3160), (sym_fb_output_decls, 3160), (sym_no_retain_var_decls, 3160),
     (sym_fb_body, 8237), (sym_method_decl, 2549), (sym_prog_access_decls, 3043), (sym_SFC, 7970),
     (sym_SFC_network, 7612), (sym_initial_step, 7439), (sym_config_init, 3047),
     (sym_variable_access, 7530), (sym_func_call, 2961), (sym_stmt_list, 7970), (sym__stmt, 2024),
     (sym_assign, 3150), (sym_if_stmt, 3150), (sym_case_stmt, 3150), (sym_for_stmt, 3150),
     (sym_while_stmt, 3150), (sym_repeat_stmt, 3150), (sym_raise_stmt, 3150), (sym_try_stmt, 3150),
     (sym_ERR_clause_outside_try, 3150), (sym_begin_path_expression, 2943), (sym_invocation, 2934),
     (sym_any_invocation, 2935), (sym_this_invocation, 2641), (sym_super_invocation, 2641),
     (sym_super_body_invocation, 2935), (sym_path_expression, 2627), (sym_field_expression, 2373),
     (sym_index_expression, 2373), (sym_ladder_diagram, 7970), (sym_fb_diagram, 7970),
     (aux_sym_ERR_fb_variables_after_method_repeat1, 2343), (aux_sym_func_decl_repeat1, 7194),
     (aux_sym_fb_decl_repeat3, 2549), (aux_sym_SFC_repeat1, 7612),
     (aux_sym_stmt_list_repeat1, 2024), (aux_sym_ladder_diagram_repeat1, 8009),
     (aux_sym_fb_diagram_repeat1, 8013), (sym_identifier, 298),
     (aux_sym_ERR_unexpected_this_in_path_token1, 304),
     (aux_sym_ERR_unexpected_super_in_path_token1, 306), (sym_line_comment, 3),
     (anon_sym_LBRACE, 308), (aux_sym_test_pragma_token1, 9), (aux_sym_once_pragma_token1, 11),
     (aux_sym_must_call_pragma_token1, 13), (aux_sym_export_pragma_token1, 15),
     (anon_sym_SEMI, 310), (anon_sym_PERCENT, 312), (aux_sym_input_decls_token1, 314),
     (aux_sym_output_decls_token1, 316), (aux_sym_in_out_decls_token1, 318),
     (aux_sym_var_decls_token1, 320), (aux_sym_temp_var_decls_token1, 322),
     (aux_sym_external_var_decls_token1, 324), (aux_sym_global_var_decls_token1, 326),
     (aux_sym_fb_decl_token4, 1112), (aux_sym_method_decl_token1, 330),
     (aux_sym_prog_access_decls_token1, 332), (aux_sym_initial_step_token1, 334),
     (aux_sym_config_init_token1, 336), (aux_sym__stmt_token1, 340), (aux_sym__stmt_token2, 340),
     (aux_sym__stmt_token3, 340), (aux_sym_if_stmt_token1, 342), (aux_sym_case_stmt_token1, 344),
     (aux_sym_for_stmt_token1, 346), (aux_sym_while_stmt_token1, 348),
     (aux_sym_repeat_stmt_token1, 350), (aux_sym_raise_stmt_token1, 352),
     (aux_sym_try_stmt_token1, 354), (aux_sym_try_stmt_token2, 356),
     (aux_sym_catch_clause_token1, 356), (aux_sym_finally_clause_token1, 356), (sym_ld_rung, 358),
     (sym_fbd_network, 360), (sym_c_style_comment, 3), (sym_pascal_style_comment, 3),
     (sym_pragma, 3)]"

lemma ts_parse_row_391_scan: "row_scan tokens_63_2 0 ts_parse_row_391 = Some (Suc (Suc (Suc (Suc 0))))"
  unfolding ts_parse_row_391_def by simp

text \<open>Lines 99505 to 99617.\<close>

definition ts_parse_row_392 :: parse_row where
  "ts_parse_row_392 =
    [(sym_ERR_assign_func_call, 7530), (sym_ERR_unexpected_this_in_path, 2372),
     (sym_ERR_unexpected_super_in_path, 2372), (sym_ERR_fb_variables_after_method, 1268),
     (sym_ERR_var_access_not_allowed, 3160), (sym_ERR_var_config_not_allowed, 3160),
     (sym_ERR_var_global_not_allowed, 3160), (sym_ERR_method_decl_in_body, 3150),
     (sym_extern_pragma, 7490), (sym_wasm_pragma, 3150), (sym_warn_pragma, 7490),
     (sym_allow_pragma, 3140), (sym_test_pragma, 7490), (sym_once_pragma, 7490),
     (sym_must_call_pragma, 7490), (sym_export_pragma, 7490), (sym_pou_pragma, 7194),
     (sym_direct_variable, 7675), (sym_deref_expression, 2373), (sym_variable, 7599),
     (sym_var_access, 2373), (sym_in_out_decls, 3160), (sym_var_decls, 3160),
     (sym_retain_var_decls, 3160), (sym_temp_var_decls, 3160), (sym_external_var_decls, 3160),
     (sym_global_var_decls, 2947), (sym_loc_partly_var_decl, 3160), (sym__fb_variables, 2343),
     (sym_fb_input_decls, 3160), (sym_fb_output_decls, 3160), (sym_no_retain_var_decls, 3160),
     (sym_fb_body, 8964), (sym_method_decl, 2549), (sym_prog_access_decls, 3043), (sym_SFC, 7970),
     (sym_SFC_network, 7612), (sym_initial_step, 7439), (sym_config_init, 3047),
     (sym_variable_access, 7530), (sym_func_call, 2961), (sym_stmt_list, 7970), (sym__stmt, 2024),
     (sym_assign, 3150), (sym_if_stmt, 3150), (sym_case_stmt, 3150), (sym_for_stmt, 3150),
     (sym_while_stmt, 3150), (sym_repeat_stmt, 3150), (sym_raise_stmt, 3150), (sym_try_stmt, 3150),
     (sym_ERR_clause_outside_try, 3150), (sym_begin_path_expression, 2943), (sym_invocation, 2934),
     (sym_any_invocation, 2935), (sym_this_invocation, 2641), (sym_super_invocation, 2641),
     (sym_super_body_invocation, 2935), (sym_path_expression, 2627), (sym_field_expression, 2373),
     (sym_index_expression, 2373), (sym_ladder_diagram, 7970), (sym_fb_diagram, 7970),
     (aux_sym_ERR_fb_variables_after_method_repeat1, 2343), (aux_sym_func_decl_repeat1, 7194),
     (aux_sym_fb_decl_repeat3, 2549), (aux_sym_SFC_repeat1, 7612),
     (aux_sym_stmt_list_repeat1, 2024), (aux_sym_ladder_diagram_repeat1, 8009),
     (aux_sym_fb_diagram_repeat1, 8013), (sym_identifier, 298),
     (aux_sym_ERR_unexpected_this_in_path_token1, 304),
     (aux_sym_ERR_unexpected_super_in_path_token1, 306), (sym_line_comment, 3),
     (anon_sym_LBRACE, 308), (aux_sym_test_pragma_token1, 9), (aux_sym_once_pragma_token1, 11),
     (aux_sym_must_call_pragma_token1, 13), (aux_sym_export_pragma_token1, 15),
     (anon_sym_SEMI, 310), (anon_sym_PERCENT, 312), (aux_sym_input_decls_token1, 314),
     (aux_sym_output_decls_token1, 316), (aux_sym_in_out_decls_token1, 318),
     (aux_sym_var_decls_token1, 320), (aux_sym_temp_var_decls_token1, 322),
     (aux_sym_external_var_decls_token1, 324), (aux_sym_global_var_decls_token1, 326),
     (aux_sym_fb_decl_token4, 1114), (aux_sym_method_decl_token1, 330),
     (aux_sym_prog_access_decls_token1, 332), (aux_sym_initial_step_token1, 334),
     (aux_sym_config_init_token1, 336), (aux_sym__stmt_token1, 340), (aux_sym__stmt_token2, 340),
     (aux_sym__stmt_token3, 340), (aux_sym_if_stmt_token1, 342), (aux_sym_case_stmt_token1, 344),
     (aux_sym_for_stmt_token1, 346), (aux_sym_while_stmt_token1, 348),
     (aux_sym_repeat_stmt_token1, 350), (aux_sym_raise_stmt_token1, 352),
     (aux_sym_try_stmt_token1, 354), (aux_sym_try_stmt_token2, 356),
     (aux_sym_catch_clause_token1, 356), (aux_sym_finally_clause_token1, 356), (sym_ld_rung, 358),
     (sym_fbd_network, 360), (sym_c_style_comment, 3), (sym_pascal_style_comment, 3),
     (sym_pragma, 3)]"

lemma ts_parse_row_392_scan: "row_scan tokens_63_2 0 ts_parse_row_392 = Some (Suc (Suc (Suc (Suc 0))))"
  unfolding ts_parse_row_392_def by simp

text \<open>Lines 99618 to 99730.\<close>

definition ts_parse_row_393 :: parse_row where
  "ts_parse_row_393 =
    [(sym_ERR_assign_func_call, 7530), (sym_ERR_unexpected_this_in_path, 2372),
     (sym_ERR_unexpected_super_in_path, 2372), (sym_ERR_fb_variables_after_method, 1269),
     (sym_ERR_var_access_not_allowed, 3160), (sym_ERR_var_config_not_allowed, 3160),
     (sym_ERR_var_global_not_allowed, 3160), (sym_ERR_method_decl_in_body, 3150),
     (sym_extern_pragma, 7490), (sym_wasm_pragma, 3150), (sym_warn_pragma, 7490),
     (sym_allow_pragma, 3140), (sym_test_pragma, 7490), (sym_once_pragma, 7490),
     (sym_must_call_pragma, 7490), (sym_export_pragma, 7490), (sym_pou_pragma, 7194),
     (sym_direct_variable, 7675), (sym_deref_expression, 2373), (sym_variable, 7599),
     (sym_var_access, 2373), (sym_in_out_decls, 3160), (sym_var_decls, 3160),
     (sym_retain_var_decls, 3160), (sym_temp_var_decls, 3160), (sym_external_var_decls, 3160),
     (sym_global_var_decls, 2947), (sym_loc_partly_var_decl, 3160), (sym__fb_variables, 2343),
     (sym_fb_input_decls, 3160), (sym_fb_output_decls, 3160), (sym_no_retain_var_decls, 3160),
     (sym_fb_body, 8986), (sym_method_decl, 2549), (sym_prog_access_decls, 3043), (sym_SFC, 7970),
     (sym_SFC_network, 7612), (sym_initial_step, 7439), (sym_config_init, 3047),
     (sym_variable_access, 7530), (sym_func_call, 2961), (sym_stmt_list, 7970), (sym__stmt, 2024),
     (sym_assign, 3150), (sym_if_stmt, 3150), (sym_case_stmt, 3150), (sym_for_stmt, 3150),
     (sym_while_stmt, 3150), (sym_repeat_stmt, 3150), (sym_raise_stmt, 3150), (sym_try_stmt, 3150),
     (sym_ERR_clause_outside_try, 3150), (sym_begin_path_expression, 2943), (sym_invocation, 2934),
     (sym_any_invocation, 2935), (sym_this_invocation, 2641), (sym_super_invocation, 2641),
     (sym_super_body_invocation, 2935), (sym_path_expression, 2627), (sym_field_expression, 2373),
     (sym_index_expression, 2373), (sym_ladder_diagram, 7970), (sym_fb_diagram, 7970),
     (aux_sym_ERR_fb_variables_after_method_repeat1, 2343), (aux_sym_func_decl_repeat1, 7194),
     (aux_sym_fb_decl_repeat3, 2549), (aux_sym_SFC_repeat1, 7612),
     (aux_sym_stmt_list_repeat1, 2024), (aux_sym_ladder_diagram_repeat1, 8009),
     (aux_sym_fb_diagram_repeat1, 8013), (sym_identifier, 298),
     (aux_sym_ERR_unexpected_this_in_path_token1, 304),
     (aux_sym_ERR_unexpected_super_in_path_token1, 306), (sym_line_comment, 3),
     (anon_sym_LBRACE, 308), (aux_sym_test_pragma_token1, 9), (aux_sym_once_pragma_token1, 11),
     (aux_sym_must_call_pragma_token1, 13), (aux_sym_export_pragma_token1, 15),
     (anon_sym_SEMI, 310), (anon_sym_PERCENT, 312), (aux_sym_input_decls_token1, 314),
     (aux_sym_output_decls_token1, 316), (aux_sym_in_out_decls_token1, 318),
     (aux_sym_var_decls_token1, 320), (aux_sym_temp_var_decls_token1, 322),
     (aux_sym_external_var_decls_token1, 324), (aux_sym_global_var_decls_token1, 326),
     (aux_sym_fb_decl_token4, 1116), (aux_sym_method_decl_token1, 330),
     (aux_sym_prog_access_decls_token1, 332), (aux_sym_initial_step_token1, 334),
     (aux_sym_config_init_token1, 336), (aux_sym__stmt_token1, 340), (aux_sym__stmt_token2, 340),
     (aux_sym__stmt_token3, 340), (aux_sym_if_stmt_token1, 342), (aux_sym_case_stmt_token1, 344),
     (aux_sym_for_stmt_token1, 346), (aux_sym_while_stmt_token1, 348),
     (aux_sym_repeat_stmt_token1, 350), (aux_sym_raise_stmt_token1, 352),
     (aux_sym_try_stmt_token1, 354), (aux_sym_try_stmt_token2, 356),
     (aux_sym_catch_clause_token1, 356), (aux_sym_finally_clause_token1, 356), (sym_ld_rung, 358),
     (sym_fbd_network, 360), (sym_c_style_comment, 3), (sym_pascal_style_comment, 3),
     (sym_pragma, 3)]"

lemma ts_parse_row_393_scan: "row_scan tokens_63_2 0 ts_parse_row_393 = Some (Suc (Suc (Suc (Suc 0))))"
  unfolding ts_parse_row_393_def by simp

text \<open>Lines 99731 to 99843.\<close>

definition ts_parse_row_394 :: parse_row where
  "ts_parse_row_394 =
    [(sym_ERR_assign_func_call, 7530), (sym_ERR_unexpected_this_in_path, 2372),
     (sym_ERR_unexpected_super_in_path, 2372), (sym_ERR_fb_variables_after_method, 1475),
     (sym_ERR_var_access_not_allowed, 3160), (sym_ERR_var_config_not_allowed, 3160),
     (sym_ERR_var_global_not_allowed, 3160), (sym_ERR_method_decl_in_body, 3150),
     (sym_extern_pragma, 7490), (sym_wasm_pragma, 3150), (sym_warn_pragma, 7490),
     (sym_allow_pragma, 3140), (sym_test_pragma, 7490), (sym_once_pragma, 7490),
     (sym_must_call_pragma, 7490), (sym_export_pragma, 7490), (sym_pou_pragma, 7194),
     (sym_direct_variable, 7675), (sym_deref_expression, 2373), (sym_variable, 7599),
     (sym_var_access, 2373), (sym_in_out_decls, 3160), (sym_var_decls, 3160),
     (sym_retain_var_decls, 3160), (sym_temp_var_decls, 3160), (sym_external_var_decls, 3160),
     (sym_global_var_decls, 2947), (sym_loc_partly_var_decl, 3160), (sym__fb_variables, 2347),
     (sym_fb_input_decls, 3160), (sym_fb_output_decls, 3160), (sym_no_retain_var_decls, 3160),
     (sym_fb_body, 8250), (sym_method_decl, 321), (sym_prog_access_decls, 3043), (sym_SFC, 7970),
     (sym_SFC_network, 7612), (sym_initial_step, 7439), (sym_config_init, 3047),
     (sym_variable_access, 7530), (sym_func_call, 2961), (sym_stmt_list, 7970), (sym__stmt, 2024),
     (sym_assign, 3150), (sym_if_stmt, 3150), (sym_case_stmt, 3150), (sym_for_stmt, 3150),
     (sym_while_stmt, 3150), (sym_repeat_stmt, 3150), (sym_raise_stmt, 3150), (sym_try_stmt, 3150),
     (sym_ERR_clause_outside_try, 3150), (sym_begin_path_expression, 2943), (sym_invocation, 2934),
     (sym_any_invocation, 2935), (sym_this_invocation, 2641), (sym_super_invocation, 2641),
     (sym_super_body_invocation, 2935), (sym_path_expression, 2627), (sym_field_expression, 2373),
     (sym_index_expression, 2373), (sym_ladder_diagram, 7970), (sym_fb_diagram, 7970),
     (aux_sym_ERR_fb_variables_after_method_repeat1, 2347), (aux_sym_func_decl_repeat1, 7194),
     (aux_sym_fb_decl_repeat3, 321), (aux_sym_SFC_repeat1, 7612), (aux_sym_stmt_list_repeat1, 2024),
     (aux_sym_ladder_diagram_repeat1, 8009), (aux_sym_fb_diagram_repeat1, 8013),
     (sym_identifier, 298), (aux_sym_ERR_unexpected_this_in_path_token1, 304),
     (aux_sym_ERR_unexpected_super_in_path_token1, 306), (sym_line_comment, 3),
     (anon_sym_LBRACE, 308), (aux_sym_test_pragma_token1, 9), (aux_sym_once_pragma_token1, 11),
     (aux_sym_must_call_pragma_token1, 13), (aux_sym_export_pragma_token1, 15),
     (anon_sym_SEMI, 310), (anon_sym_PERCENT, 312), (aux_sym_input_decls_token1, 314),
     (aux_sym_output_decls_token1, 316), (aux_sym_in_out_decls_token1, 318),
     (aux_sym_var_decls_token1, 320), (aux_sym_temp_var_decls_token1, 322),
     (aux_sym_external_var_decls_token1, 324), (aux_sym_global_var_decls_token1, 326),
     (aux_sym_fb_decl_token4, 1118), (aux_sym_method_decl_token1, 330),
     (aux_sym_prog_access_decls_token1, 332), (aux_sym_initial_step_token1, 334),
     (aux_sym_config_init_token1, 336), (aux_sym__stmt_token1, 340), (aux_sym__stmt_token2, 340),
     (aux_sym__stmt_token3, 340), (aux_sym_if_stmt_token1, 342), (aux_sym_case_stmt_token1, 344),
     (aux_sym_for_stmt_token1, 346), (aux_sym_while_stmt_token1, 348),
     (aux_sym_repeat_stmt_token1, 350), (aux_sym_raise_stmt_token1, 352),
     (aux_sym_try_stmt_token1, 354), (aux_sym_try_stmt_token2, 356),
     (aux_sym_catch_clause_token1, 356), (aux_sym_finally_clause_token1, 356), (sym_ld_rung, 358),
     (sym_fbd_network, 360), (sym_c_style_comment, 3), (sym_pascal_style_comment, 3),
     (sym_pragma, 3)]"

lemma ts_parse_row_394_scan: "row_scan tokens_63_2 0 ts_parse_row_394 = Some (Suc (Suc (Suc (Suc 0))))"
  unfolding ts_parse_row_394_def by simp

text \<open>Lines 99844 to 99956.\<close>

definition ts_parse_row_395 :: parse_row where
  "ts_parse_row_395 =
    [(sym_ERR_assign_func_call, 7530), (sym_ERR_unexpected_this_in_path, 2372),
     (sym_ERR_unexpected_super_in_path, 2372), (sym_ERR_fb_variables_after_method, 1273),
     (sym_ERR_var_access_not_allowed, 3160), (sym_ERR_var_config_not_allowed, 3160),
     (sym_ERR_var_global_not_allowed, 3160), (sym_ERR_method_decl_in_body, 3150),
     (sym_extern_pragma, 7490), (sym_wasm_pragma, 3150), (sym_warn_pragma, 7490),
     (sym_allow_pragma, 3140), (sym_test_pragma, 7490), (sym_once_pragma, 7490),
     (sym_must_call_pragma, 7490), (sym_export_pragma, 7490), (sym_pou_pragma, 7194),
     (sym_direct_variable, 7675), (sym_deref_expression, 2373), (sym_variable, 7599),
     (sym_var_access, 2373), (sym_in_out_decls, 3160), (sym_var_decls, 3160),
     (sym_retain_var_decls, 3160), (sym_temp_var_decls, 3160), (sym_external_var_decls, 3160),
     (sym_global_var_decls, 2947), (sym_loc_partly_var_decl, 3160), (sym__fb_variables, 2343),
     (sym_fb_input_decls, 3160), (sym_fb_output_decls, 3160), (sym_no_retain_var_decls, 3160),
     (sym_fb_body, 9012), (sym_method_decl, 2549), (sym_prog_access_decls, 3043), (sym_SFC, 7970),
     (sym_SFC_network, 7612), (sym_initial_step, 7439), (sym_config_init, 3047),
     (sym_variable_access, 7530), (sym_func_call, 2961), (sym_stmt_list, 7970), (sym__stmt, 2024),
     (sym_assign, 3150), (sym_if_stmt, 3150), (sym_case_stmt, 3150), (sym_for_stmt, 3150),
     (sym_while_stmt, 3150), (sym_repeat_stmt, 3150), (sym_raise_stmt, 3150), (sym_try_stmt, 3150),
     (sym_ERR_clause_outside_try, 3150), (sym_begin_path_expression, 2943), (sym_invocation, 2934),
     (sym_any_invocation, 2935), (sym_this_invocation, 2641), (sym_super_invocation, 2641),
     (sym_super_body_invocation, 2935), (sym_path_expression, 2627), (sym_field_expression, 2373),
     (sym_index_expression, 2373), (sym_ladder_diagram, 7970), (sym_fb_diagram, 7970),
     (aux_sym_ERR_fb_variables_after_method_repeat1, 2343), (aux_sym_func_decl_repeat1, 7194),
     (aux_sym_fb_decl_repeat3, 2549), (aux_sym_SFC_repeat1, 7612),
     (aux_sym_stmt_list_repeat1, 2024), (aux_sym_ladder_diagram_repeat1, 8009),
     (aux_sym_fb_diagram_repeat1, 8013), (sym_identifier, 298),
     (aux_sym_ERR_unexpected_this_in_path_token1, 304),
     (aux_sym_ERR_unexpected_super_in_path_token1, 306), (sym_line_comment, 3),
     (anon_sym_LBRACE, 308), (aux_sym_test_pragma_token1, 9), (aux_sym_once_pragma_token1, 11),
     (aux_sym_must_call_pragma_token1, 13), (aux_sym_export_pragma_token1, 15),
     (anon_sym_SEMI, 310), (anon_sym_PERCENT, 312), (aux_sym_input_decls_token1, 314),
     (aux_sym_output_decls_token1, 316), (aux_sym_in_out_decls_token1, 318),
     (aux_sym_var_decls_token1, 320), (aux_sym_temp_var_decls_token1, 322),
     (aux_sym_external_var_decls_token1, 324), (aux_sym_global_var_decls_token1, 326),
     (aux_sym_fb_decl_token4, 1120), (aux_sym_method_decl_token1, 330),
     (aux_sym_prog_access_decls_token1, 332), (aux_sym_initial_step_token1, 334),
     (aux_sym_config_init_token1, 336), (aux_sym__stmt_token1, 340), (aux_sym__stmt_token2, 340),
     (aux_sym__stmt_token3, 340), (aux_sym_if_stmt_token1, 342), (aux_sym_case_stmt_token1, 344),
     (aux_sym_for_stmt_token1, 346), (aux_sym_while_stmt_token1, 348),
     (aux_sym_repeat_stmt_token1, 350), (aux_sym_raise_stmt_token1, 352),
     (aux_sym_try_stmt_token1, 354), (aux_sym_try_stmt_token2, 356),
     (aux_sym_catch_clause_token1, 356), (aux_sym_finally_clause_token1, 356), (sym_ld_rung, 358),
     (sym_fbd_network, 360), (sym_c_style_comment, 3), (sym_pascal_style_comment, 3),
     (sym_pragma, 3)]"

lemma ts_parse_row_395_scan: "row_scan tokens_63_2 0 ts_parse_row_395 = Some (Suc (Suc (Suc (Suc 0))))"
  unfolding ts_parse_row_395_def by simp

text \<open>Lines 99957 to 100069.\<close>

definition ts_parse_row_396 :: parse_row where
  "ts_parse_row_396 =
    [(sym_ERR_assign_func_call, 7530), (sym_ERR_unexpected_this_in_path, 2372),
     (sym_ERR_unexpected_super_in_path, 2372), (sym_ERR_fb_variables_after_method, 1274),
     (sym_ERR_var_access_not_allowed, 3160), (sym_ERR_var_config_not_allowed, 3160),
     (sym_ERR_var_global_not_allowed, 3160), (sym_ERR_method_decl_in_body, 3150),
     (sym_extern_pragma, 7490), (sym_wasm_pragma, 3150), (sym_warn_pragma, 7490),
     (sym_allow_pragma, 3140), (sym_test_pragma, 7490), (sym_once_pragma, 7490),
     (sym_must_call_pragma, 7490), (sym_export_pragma, 7490), (sym_pou_pragma, 7194),
     (sym_direct_variable, 7675), (sym_deref_expression, 2373), (sym_variable, 7599),
     (sym_var_access, 2373), (sym_in_out_decls, 3160), (sym_var_decls, 3160),
     (sym_retain_var_decls, 3160), (sym_temp_var_decls, 3160), (sym_external_var_decls, 3160),
     (sym_global_var_decls, 2947), (sym_loc_partly_var_decl, 3160), (sym__fb_variables, 2347),
     (sym_fb_input_decls, 3160), (sym_fb_output_decls, 3160), (sym_no_retain_var_decls, 3160),
     (sym_fb_body, 9023), (sym_method_decl, 538), (sym_prog_access_decls, 3043), (sym_SFC, 7970),
     (sym_SFC_network, 7612), (sym_initial_step, 7439), (sym_config_init, 3047),
     (sym_variable_access, 7530), (sym_func_call, 2961), (sym_stmt_list, 7970), (sym__stmt, 2024),
     (sym_assign, 3150), (sym_if_stmt, 3150), (sym_case_stmt, 3150), (sym_for_stmt, 3150),
     (sym_while_stmt, 3150), (sym_repeat_stmt, 3150), (sym_raise_stmt, 3150), (sym_try_stmt, 3150),
     (sym_ERR_clause_outside_try, 3150), (sym_begin_path_expression, 2943), (sym_invocation, 2934),
     (sym_any_invocation, 2935), (sym_this_invocation, 2641), (sym_super_invocation, 2641),
     (sym_super_body_invocation, 2935), (sym_path_expression, 2627), (sym_field_expression, 2373),
     (sym_index_expression, 2373), (sym_ladder_diagram, 7970), (sym_fb_diagram, 7970),
     (aux_sym_ERR_fb_variables_after_method_repeat1, 2347), (aux_sym_func_decl_repeat1, 7194),
     (aux_sym_fb_decl_repeat3, 538), (aux_sym_SFC_repeat1, 7612), (aux_sym_stmt_list_repeat1, 2024),
     (aux_sym_ladder_diagram_repeat1, 8009), (aux_sym_fb_diagram_repeat1, 8013),
     (sym_identifier, 298), (aux_sym_ERR_unexpected_this_in_path_token1, 304),
     (aux_sym_ERR_unexpected_super_in_path_token1, 306), (sym_line_comment, 3),
     (anon_sym_LBRACE, 308), (aux_sym_test_pragma_token1, 9), (aux_sym_once_pragma_token1, 11),
     (aux_sym_must_call_pragma_token1, 13), (aux_sym_export_pragma_token1, 15),
     (anon_sym_SEMI, 310), (anon_sym_PERCENT, 312), (aux_sym_input_decls_token1, 314),
     (aux_sym_output_decls_token1, 316), (aux_sym_in_out_decls_token1, 318),
     (aux_sym_var_decls_token1, 320), (aux_sym_temp_var_decls_token1, 322),
     (aux_sym_external_var_decls_token1, 324), (aux_sym_global_var_decls_token1, 326),
     (aux_sym_fb_decl_token4, 1122), (aux_sym_method_decl_token1, 330),
     (aux_sym_prog_access_decls_token1, 332), (aux_sym_initial_step_token1, 334),
     (aux_sym_config_init_token1, 336), (aux_sym__stmt_token1, 340), (aux_sym__stmt_token2, 340),
     (aux_sym__stmt_token3, 340), (aux_sym_if_stmt_token1, 342), (aux_sym_case_stmt_token1, 344),
     (aux_sym_for_stmt_token1, 346), (aux_sym_while_stmt_token1, 348),
     (aux_sym_repeat_stmt_token1, 350), (aux_sym_raise_stmt_token1, 352),
     (aux_sym_try_stmt_token1, 354), (aux_sym_try_stmt_token2, 356),
     (aux_sym_catch_clause_token1, 356), (aux_sym_finally_clause_token1, 356), (sym_ld_rung, 358),
     (sym_fbd_network, 360), (sym_c_style_comment, 3), (sym_pascal_style_comment, 3),
     (sym_pragma, 3)]"

lemma ts_parse_row_396_scan: "row_scan tokens_63_2 0 ts_parse_row_396 = Some (Suc (Suc (Suc (Suc 0))))"
  unfolding ts_parse_row_396_def by simp

text \<open>Lines 100070 to 100182.\<close>

definition ts_parse_row_397 :: parse_row where
  "ts_parse_row_397 =
    [(sym_ERR_assign_func_call, 7530), (sym_ERR_unexpected_this_in_path, 2372),
     (sym_ERR_unexpected_super_in_path, 2372), (sym_ERR_fb_variables_after_method, 1276),
     (sym_ERR_var_access_not_allowed, 3160), (sym_ERR_var_config_not_allowed, 3160),
     (sym_ERR_var_global_not_allowed, 3160), (sym_ERR_method_decl_in_body, 3150),
     (sym_extern_pragma, 7490), (sym_wasm_pragma, 3150), (sym_warn_pragma, 7490),
     (sym_allow_pragma, 3140), (sym_test_pragma, 7490), (sym_once_pragma, 7490),
     (sym_must_call_pragma, 7490), (sym_export_pragma, 7490), (sym_pou_pragma, 7194),
     (sym_direct_variable, 7675), (sym_deref_expression, 2373), (sym_variable, 7599),
     (sym_var_access, 2373), (sym_in_out_decls, 3160), (sym_var_decls, 3160),
     (sym_retain_var_decls, 3160), (sym_temp_var_decls, 3160), (sym_external_var_decls, 3160),
     (sym_global_var_decls, 2947), (sym_loc_partly_var_decl, 3160), (sym__fb_variables, 2343),
     (sym_fb_input_decls, 3160), (sym_fb_output_decls, 3160), (sym_no_retain_var_decls, 3160),
     (sym_fb_body, 9029), (sym_method_decl, 2549), (sym_prog_access_decls, 3043), (sym_SFC, 7970),
     (sym_SFC_network, 7612), (sym_initial_step, 7439), (sym_config_init, 3047),
     (sym_variable_access, 7530), (sym_func_call, 2961), (sym_stmt_list, 7970), (sym__stmt, 2024),
     (sym_assign, 3150), (sym_if_stmt, 3150), (sym_case_stmt, 3150), (sym_for_stmt, 3150),
     (sym_while_stmt, 3150), (sym_repeat_stmt, 3150), (sym_raise_stmt, 3150), (sym_try_stmt, 3150),
     (sym_ERR_clause_outside_try, 3150), (sym_begin_path_expression, 2943), (sym_invocation, 2934),
     (sym_any_invocation, 2935), (sym_this_invocation, 2641), (sym_super_invocation, 2641),
     (sym_super_body_invocation, 2935), (sym_path_expression, 2627), (sym_field_expression, 2373),
     (sym_index_expression, 2373), (sym_ladder_diagram, 7970), (sym_fb_diagram, 7970),
     (aux_sym_ERR_fb_variables_after_method_repeat1, 2343), (aux_sym_func_decl_repeat1, 7194),
     (aux_sym_fb_decl_repeat3, 2549), (aux_sym_SFC_repeat1, 7612),
     (aux_sym_stmt_list_repeat1, 2024), (aux_sym_ladder_diagram_repeat1, 8009),
     (aux_sym_fb_diagram_repeat1, 8013), (sym_identifier, 298),
     (aux_sym_ERR_unexpected_this_in_path_token1, 304),
     (aux_sym_ERR_unexpected_super_in_path_token1, 306), (sym_line_comment, 3),
     (anon_sym_LBRACE, 308), (aux_sym_test_pragma_token1, 9), (aux_sym_once_pragma_token1, 11),
     (aux_sym_must_call_pragma_token1, 13), (aux_sym_export_pragma_token1, 15),
     (anon_sym_SEMI, 310), (anon_sym_PERCENT, 312), (aux_sym_input_decls_token1, 314),
     (aux_sym_output_decls_token1, 316), (aux_sym_in_out_decls_token1, 318),
     (aux_sym_var_decls_token1, 320), (aux_sym_temp_var_decls_token1, 322),
     (aux_sym_external_var_decls_token1, 324), (aux_sym_global_var_decls_token1, 326),
     (aux_sym_fb_decl_token4, 1124), (aux_sym_method_decl_token1, 330),
     (aux_sym_prog_access_decls_token1, 332), (aux_sym_initial_step_token1, 334),
     (aux_sym_config_init_token1, 336), (aux_sym__stmt_token1, 340), (aux_sym__stmt_token2, 340),
     (aux_sym__stmt_token3, 340), (aux_sym_if_stmt_token1, 342), (aux_sym_case_stmt_token1, 344),
     (aux_sym_for_stmt_token1, 346), (aux_sym_while_stmt_token1, 348),
     (aux_sym_repeat_stmt_token1, 350), (aux_sym_raise_stmt_token1, 352),
     (aux_sym_try_stmt_token1, 354), (aux_sym_try_stmt_token2, 356),
     (aux_sym_catch_clause_token1, 356), (aux_sym_finally_clause_token1, 356), (sym_ld_rung, 358),
     (sym_fbd_network, 360), (sym_c_style_comment, 3), (sym_pascal_style_comment, 3),
     (sym_pragma, 3)]"

lemma ts_parse_row_397_scan: "row_scan tokens_63_2 0 ts_parse_row_397 = Some (Suc (Suc (Suc (Suc 0))))"
  unfolding ts_parse_row_397_def by simp

text \<open>Lines 100183 to 100295.\<close>

definition ts_parse_row_398 :: parse_row where
  "ts_parse_row_398 =
    [(sym_ERR_assign_func_call, 7530), (sym_ERR_unexpected_this_in_path, 2372),
     (sym_ERR_unexpected_super_in_path, 2372), (sym_ERR_fb_variables_after_method, 1277),
     (sym_ERR_var_access_not_allowed, 3160), (sym_ERR_var_config_not_allowed, 3160),
     (sym_ERR_var_global_not_allowed, 3160), (sym_ERR_method_decl_in_body, 3150),
     (sym_extern_pragma, 7490), (sym_wasm_pragma, 3150), (sym_warn_pragma, 7490),
     (sym_allow_pragma, 3140), (sym_test_pragma, 7490), (sym_once_pragma, 7490),
     (sym_must_call_pragma, 7490), (sym_export_pragma, 7490), (sym_pou_pragma, 7194),
     (sym_direct_variable, 7675), (sym_deref_expression, 2373), (sym_variable, 7599),
     (sym_var_access, 2373), (sym_in_out_decls, 3160), (sym_var_decls, 3160),
     (sym_retain_var_decls, 3160), (sym_temp_var_decls, 3160), (sym_external_var_decls, 3160),
     (sym_global_var_decls, 2947), (sym_loc_partly_var_decl, 3160), (sym__fb_variables, 2347),
     (sym_fb_input_decls, 3160), (sym_fb_output_decls, 3160), (sym_no_retain_var_decls, 3160),
     (sym_fb_body, 9036), (sym_method_decl, 539), (sym_prog_access_decls, 3043), (sym_SFC, 7970),
     (sym_SFC_network, 7612), (sym_initial_step, 7439), (sym_config_init, 3047),
     (sym_variable_access, 7530), (sym_func_call, 2961), (sym_stmt_list, 7970), (sym__stmt, 2024),
     (sym_assign, 3150), (sym_if_stmt, 3150), (sym_case_stmt, 3150), (sym_for_stmt, 3150),
     (sym_while_stmt, 3150), (sym_repeat_stmt, 3150), (sym_raise_stmt, 3150), (sym_try_stmt, 3150),
     (sym_ERR_clause_outside_try, 3150), (sym_begin_path_expression, 2943), (sym_invocation, 2934),
     (sym_any_invocation, 2935), (sym_this_invocation, 2641), (sym_super_invocation, 2641),
     (sym_super_body_invocation, 2935), (sym_path_expression, 2627), (sym_field_expression, 2373),
     (sym_index_expression, 2373), (sym_ladder_diagram, 7970), (sym_fb_diagram, 7970),
     (aux_sym_ERR_fb_variables_after_method_repeat1, 2347), (aux_sym_func_decl_repeat1, 7194),
     (aux_sym_fb_decl_repeat3, 539), (aux_sym_SFC_repeat1, 7612), (aux_sym_stmt_list_repeat1, 2024),
     (aux_sym_ladder_diagram_repeat1, 8009), (aux_sym_fb_diagram_repeat1, 8013),
     (sym_identifier, 298), (aux_sym_ERR_unexpected_this_in_path_token1, 304),
     (aux_sym_ERR_unexpected_super_in_path_token1, 306), (sym_line_comment, 3),
     (anon_sym_LBRACE, 308), (aux_sym_test_pragma_token1, 9), (aux_sym_once_pragma_token1, 11),
     (aux_sym_must_call_pragma_token1, 13), (aux_sym_export_pragma_token1, 15),
     (anon_sym_SEMI, 310), (anon_sym_PERCENT, 312), (aux_sym_input_decls_token1, 314),
     (aux_sym_output_decls_token1, 316), (aux_sym_in_out_decls_token1, 318),
     (aux_sym_var_decls_token1, 320), (aux_sym_temp_var_decls_token1, 322),
     (aux_sym_external_var_decls_token1, 324), (aux_sym_global_var_decls_token1, 326),
     (aux_sym_fb_decl_token4, 1126), (aux_sym_method_decl_token1, 330),
     (aux_sym_prog_access_decls_token1, 332), (aux_sym_initial_step_token1, 334),
     (aux_sym_config_init_token1, 336), (aux_sym__stmt_token1, 340), (aux_sym__stmt_token2, 340),
     (aux_sym__stmt_token3, 340), (aux_sym_if_stmt_token1, 342), (aux_sym_case_stmt_token1, 344),
     (aux_sym_for_stmt_token1, 346), (aux_sym_while_stmt_token1, 348),
     (aux_sym_repeat_stmt_token1, 350), (aux_sym_raise_stmt_token1, 352),
     (aux_sym_try_stmt_token1, 354), (aux_sym_try_stmt_token2, 356),
     (aux_sym_catch_clause_token1, 356), (aux_sym_finally_clause_token1, 356), (sym_ld_rung, 358),
     (sym_fbd_network, 360), (sym_c_style_comment, 3), (sym_pascal_style_comment, 3),
     (sym_pragma, 3)]"

lemma ts_parse_row_398_scan: "row_scan tokens_63_2 0 ts_parse_row_398 = Some (Suc (Suc (Suc (Suc 0))))"
  unfolding ts_parse_row_398_def by simp

text \<open>Lines 100296 to 100408.\<close>

definition ts_parse_row_399 :: parse_row where
  "ts_parse_row_399 =
    [(sym_ERR_assign_func_call, 7530), (sym_ERR_unexpected_this_in_path, 2372),
     (sym_ERR_unexpected_super_in_path, 2372), (sym_ERR_fb_variables_after_method, 1948),
     (sym_ERR_var_access_not_allowed, 3160), (sym_ERR_var_config_not_allowed, 3160),
     (sym_ERR_var_global_not_allowed, 3160), (sym_ERR_method_decl_in_body, 3150),
     (sym_extern_pragma, 7490), (sym_wasm_pragma, 3150), (sym_warn_pragma, 7490),
     (sym_allow_pragma, 3140), (sym_test_pragma, 7490), (sym_once_pragma, 7490),
     (sym_must_call_pragma, 7490), (sym_export_pragma, 7490), (sym_pou_pragma, 7194),
     (sym_direct_variable, 7675), (sym_deref_expression, 2373), (sym_variable, 7599),
     (sym_var_access, 2373), (sym_in_out_decls, 3160), (sym_var_decls, 3160),
     (sym_retain_var_decls, 3160), (sym_temp_var_decls, 3160), (sym_external_var_decls, 3160),
     (sym_global_var_decls, 2947), (sym_loc_partly_var_decl, 3160), (sym__fb_variables, 2347),
     (sym_fb_input_decls, 3160), (sym_fb_output_decls, 3160), (sym_no_retain_var_decls, 3160),
     (sym_fb_body, 9154), (sym_method_decl, 453), (sym_prog_access_decls, 3043), (sym_SFC, 7970),
     (sym_SFC_network, 7612), (sym_initial_step, 7439), (sym_config_init, 3047),
     (sym_variable_access, 7530), (sym_func_call, 2961), (sym_stmt_list, 7970), (sym__stmt, 2024),
     (sym_assign, 3150), (sym_if_stmt, 3150), (sym_case_stmt, 3150), (sym_for_stmt, 3150),
     (sym_while_stmt, 3150), (sym_repeat_stmt, 3150), (sym_raise_stmt, 3150), (sym_try_stmt, 3150),
     (sym_ERR_clause_outside_try, 3150), (sym_begin_path_expression, 2943), (sym_invocation, 2934),
     (sym_any_invocation, 2935), (sym_this_invocation, 2641), (sym_super_invocation, 2641),
     (sym_super_body_invocation, 2935), (sym_path_expression, 2627), (sym_field_expression, 2373),
     (sym_index_expression, 2373), (sym_ladder_diagram, 7970), (sym_fb_diagram, 7970),
     (aux_sym_ERR_fb_variables_after_method_repeat1, 2347), (aux_sym_func_decl_repeat1, 7194),
     (aux_sym_fb_decl_repeat3, 453), (aux_sym_SFC_repeat1, 7612), (aux_sym_stmt_list_repeat1, 2024),
     (aux_sym_ladder_diagram_repeat1, 8009), (aux_sym_fb_diagram_repeat1, 8013),
     (sym_identifier, 298), (aux_sym_ERR_unexpected_this_in_path_token1, 304),
     (aux_sym_ERR_unexpected_super_in_path_token1, 306), (sym_line_comment, 3),
     (anon_sym_LBRACE, 308), (aux_sym_test_pragma_token1, 9), (aux_sym_once_pragma_token1, 11),
     (aux_sym_must_call_pragma_token1, 13), (aux_sym_export_pragma_token1, 15),
     (anon_sym_SEMI, 310), (anon_sym_PERCENT, 312), (aux_sym_input_decls_token1, 314),
     (aux_sym_output_decls_token1, 316), (aux_sym_in_out_decls_token1, 318),
     (aux_sym_var_decls_token1, 320), (aux_sym_temp_var_decls_token1, 322),
     (aux_sym_external_var_decls_token1, 324), (aux_sym_global_var_decls_token1, 326),
     (aux_sym_fb_decl_token4, 1128), (aux_sym_method_decl_token1, 330),
     (aux_sym_prog_access_decls_token1, 332), (aux_sym_initial_step_token1, 334),
     (aux_sym_config_init_token1, 336), (aux_sym__stmt_token1, 340), (aux_sym__stmt_token2, 340),
     (aux_sym__stmt_token3, 340), (aux_sym_if_stmt_token1, 342), (aux_sym_case_stmt_token1, 344),
     (aux_sym_for_stmt_token1, 346), (aux_sym_while_stmt_token1, 348),
     (aux_sym_repeat_stmt_token1, 350), (aux_sym_raise_stmt_token1, 352),
     (aux_sym_try_stmt_token1, 354), (aux_sym_try_stmt_token2, 356),
     (aux_sym_catch_clause_token1, 356), (aux_sym_finally_clause_token1, 356), (sym_ld_rung, 358),
     (sym_fbd_network, 360), (sym_c_style_comment, 3), (sym_pascal_style_comment, 3),
     (sym_pragma, 3)]"

lemma ts_parse_row_399_scan: "row_scan tokens_63_2 0 ts_parse_row_399 = Some (Suc (Suc (Suc (Suc 0))))"
  unfolding ts_parse_row_399_def by simp

text \<open>Lines 100409 to 100521.\<close>

definition ts_parse_row_400 :: parse_row where
  "ts_parse_row_400 =
    [(sym_ERR_assign_func_call, 7530), (sym_ERR_unexpected_this_in_path, 2372),
     (sym_ERR_unexpected_super_in_path, 2372), (sym_ERR_fb_variables_after_method, 1280),
     (sym_ERR_var_access_not_allowed, 3160), (sym_ERR_var_config_not_allowed, 3160),
     (sym_ERR_var_global_not_allowed, 3160), (sym_ERR_method_decl_in_body, 3150),
     (sym_extern_pragma, 7490), (sym_wasm_pragma, 3150), (sym_warn_pragma, 7490),
     (sym_allow_pragma, 3140), (sym_test_pragma, 7490), (sym_once_pragma, 7490),
     (sym_must_call_pragma, 7490), (sym_export_pragma, 7490), (sym_pou_pragma, 7194),
     (sym_direct_variable, 7675), (sym_deref_expression, 2373), (sym_variable, 7599),
     (sym_var_access, 2373), (sym_in_out_decls, 3160), (sym_var_decls, 3160),
     (sym_retain_var_decls, 3160), (sym_temp_var_decls, 3160), (sym_external_var_decls, 3160),
     (sym_global_var_decls, 2947), (sym_loc_partly_var_decl, 3160), (sym__fb_variables, 2343),
     (sym_fb_input_decls, 3160), (sym_fb_output_decls, 3160), (sym_no_retain_var_decls, 3160),
     (sym_fb_body, 9052), (sym_method_decl, 2549), (sym_prog_access_decls, 3043), (sym_SFC, 7970),
     (sym_SFC_network, 7612), (sym_initial_step, 7439), (sym_config_init, 3047),
     (sym_variable_access, 7530), (sym_func_call, 2961), (sym_stmt_list, 7970), (sym__stmt, 2024),
     (sym_assign, 3150), (sym_if_stmt, 3150), (sym_case_stmt, 3150), (sym_for_stmt, 3150),
     (sym_while_stmt, 3150), (sym_repeat_stmt, 3150), (sym_raise_stmt, 3150), (sym_try_stmt, 3150),
     (sym_ERR_clause_outside_try, 3150), (sym_begin_path_expression, 2943), (sym_invocation, 2934),
     (sym_any_invocation, 2935), (sym_this_invocation, 2641), (sym_super_invocation, 2641),
     (sym_super_body_invocation, 2935), (sym_path_expression, 2627), (sym_field_expression, 2373),
     (sym_index_expression, 2373), (sym_ladder_diagram, 7970), (sym_fb_diagram, 7970),
     (aux_sym_ERR_fb_variables_after_method_repeat1, 2343), (aux_sym_func_decl_repeat1, 7194),
     (aux_sym_fb_decl_repeat3, 2549), (aux_sym_SFC_repeat1, 7612),
     (aux_sym_stmt_list_repeat1, 2024), (aux_sym_ladder_diagram_repeat1, 8009),
     (aux_sym_fb_diagram_repeat1, 8013), (sym_identifier, 298),
     (aux_sym_ERR_unexpected_this_in_path_token1, 304),
     (aux_sym_ERR_unexpected_super_in_path_token1, 306), (sym_line_comment, 3),
     (anon_sym_LBRACE, 308), (aux_sym_test_pragma_token1, 9), (aux_sym_once_pragma_token1, 11),
     (aux_sym_must_call_pragma_token1, 13), (aux_sym_export_pragma_token1, 15),
     (anon_sym_SEMI, 310), (anon_sym_PERCENT, 312), (aux_sym_input_decls_token1, 314),
     (aux_sym_output_decls_token1, 316), (aux_sym_in_out_decls_token1, 318),
     (aux_sym_var_decls_token1, 320), (aux_sym_temp_var_decls_token1, 322),
     (aux_sym_external_var_decls_token1, 324), (aux_sym_global_var_decls_token1, 326),
     (aux_sym_fb_decl_token4, 1130), (aux_sym_method_decl_token1, 330),
     (aux_sym_prog_access_decls_token1, 332), (aux_sym_initial_step_token1, 334),
     (aux_sym_config_init_token1, 336), (aux_sym__stmt_token1, 340), (aux_sym__stmt_token2, 340),
     (aux_sym__stmt_token3, 340), (aux_sym_if_stmt_token1, 342), (aux_sym_case_stmt_token1, 344),
     (aux_sym_for_stmt_token1, 346), (aux_sym_while_stmt_token1, 348),
     (aux_sym_repeat_stmt_token1, 350), (aux_sym_raise_stmt_token1, 352),
     (aux_sym_try_stmt_token1, 354), (aux_sym_try_stmt_token2, 356),
     (aux_sym_catch_clause_token1, 356), (aux_sym_finally_clause_token1, 356), (sym_ld_rung, 358),
     (sym_fbd_network, 360), (sym_c_style_comment, 3), (sym_pascal_style_comment, 3),
     (sym_pragma, 3)]"

lemma ts_parse_row_400_scan: "row_scan tokens_63_2 0 ts_parse_row_400 = Some (Suc (Suc (Suc (Suc 0))))"
  unfolding ts_parse_row_400_def by simp

text \<open>Lines 100522 to 100634.\<close>

definition ts_parse_row_401 :: parse_row where
  "ts_parse_row_401 =
    [(sym_ERR_assign_func_call, 7530), (sym_ERR_unexpected_this_in_path, 2372),
     (sym_ERR_unexpected_super_in_path, 2372), (sym_ERR_fb_variables_after_method, 1281),
     (sym_ERR_var_access_not_allowed, 3160), (sym_ERR_var_config_not_allowed, 3160),
     (sym_ERR_var_global_not_allowed, 3160), (sym_ERR_method_decl_in_body, 3150),
     (sym_extern_pragma, 7490), (sym_wasm_pragma, 3150), (sym_warn_pragma, 7490),
     (sym_allow_pragma, 3140), (sym_test_pragma, 7490), (sym_once_pragma, 7490),
     (sym_must_call_pragma, 7490), (sym_export_pragma, 7490), (sym_pou_pragma, 7194),
     (sym_direct_variable, 7675), (sym_deref_expression, 2373), (sym_variable, 7599),
     (sym_var_access, 2373), (sym_in_out_decls, 3160), (sym_var_decls, 3160),
     (sym_retain_var_decls, 3160), (sym_temp_var_decls, 3160), (sym_external_var_decls, 3160),
     (sym_global_var_decls, 2947), (sym_loc_partly_var_decl, 3160), (sym__fb_variables, 2343),
     (sym_fb_input_decls, 3160), (sym_fb_output_decls, 3160), (sym_no_retain_var_decls, 3160),
     (sym_fb_body, 9084), (sym_method_decl, 2549), (sym_prog_access_decls, 3043), (sym_SFC, 7970),
     (sym_SFC_network, 7612), (sym_initial_step, 7439), (sym_config_init, 3047),
     (sym_variable_access, 7530), (sym_func_call, 2961), (sym_stmt_list, 7970), (sym__stmt, 2024),
     (sym_assign, 3150), (sym_if_stmt, 3150), (sym_case_stmt, 3150), (sym_for_stmt, 3150),
     (sym_while_stmt, 3150), (sym_repeat_stmt, 3150), (sym_raise_stmt, 3150), (sym_try_stmt, 3150),
     (sym_ERR_clause_outside_try, 3150), (sym_begin_path_expression, 2943), (sym_invocation, 2934),
     (sym_any_invocation, 2935), (sym_this_invocation, 2641), (sym_super_invocation, 2641),
     (sym_super_body_invocation, 2935), (sym_path_expression, 2627), (sym_field_expression, 2373),
     (sym_index_expression, 2373), (sym_ladder_diagram, 7970), (sym_fb_diagram, 7970),
     (aux_sym_ERR_fb_variables_after_method_repeat1, 2343), (aux_sym_func_decl_repeat1, 7194),
     (aux_sym_fb_decl_repeat3, 2549), (aux_sym_SFC_repeat1, 7612),
     (aux_sym_stmt_list_repeat1, 2024), (aux_sym_ladder_diagram_repeat1, 8009),
     (aux_sym_fb_diagram_repeat1, 8013), (sym_identifier, 298),
     (aux_sym_ERR_unexpected_this_in_path_token1, 304),
     (aux_sym_ERR_unexpected_super_in_path_token1, 306), (sym_line_comment, 3),
     (anon_sym_LBRACE, 308), (aux_sym_test_pragma_token1, 9), (aux_sym_once_pragma_token1, 11),
     (aux_sym_must_call_pragma_token1, 13), (aux_sym_export_pragma_token1, 15),
     (anon_sym_SEMI, 310), (anon_sym_PERCENT, 312), (aux_sym_input_decls_token1, 314),
     (aux_sym_output_decls_token1, 316), (aux_sym_in_out_decls_token1, 318),
     (aux_sym_var_decls_token1, 320), (aux_sym_temp_var_decls_token1, 322),
     (aux_sym_external_var_decls_token1, 324), (aux_sym_global_var_decls_token1, 326),
     (aux_sym_fb_decl_token4, 1132), (aux_sym_method_decl_token1, 330),
     (aux_sym_prog_access_decls_token1, 332), (aux_sym_initial_step_token1, 334),
     (aux_sym_config_init_token1, 336), (aux_sym__stmt_token1, 340), (aux_sym__stmt_token2, 340),
     (aux_sym__stmt_token3, 340), (aux_sym_if_stmt_token1, 342), (aux_sym_case_stmt_token1, 344),
     (aux_sym_for_stmt_token1, 346), (aux_sym_while_stmt_token1, 348),
     (aux_sym_repeat_stmt_token1, 350), (aux_sym_raise_stmt_token1, 352),
     (aux_sym_try_stmt_token1, 354), (aux_sym_try_stmt_token2, 356),
     (aux_sym_catch_clause_token1, 356), (aux_sym_finally_clause_token1, 356), (sym_ld_rung, 358),
     (sym_fbd_network, 360), (sym_c_style_comment, 3), (sym_pascal_style_comment, 3),
     (sym_pragma, 3)]"

lemma ts_parse_row_401_scan: "row_scan tokens_63_2 0 ts_parse_row_401 = Some (Suc (Suc (Suc (Suc 0))))"
  unfolding ts_parse_row_401_def by simp

text \<open>Lines 100635 to 100747.\<close>

definition ts_parse_row_402 :: parse_row where
  "ts_parse_row_402 =
    [(sym_ERR_assign_func_call, 7530), (sym_ERR_unexpected_this_in_path, 2372),
     (sym_ERR_unexpected_super_in_path, 2372), (sym_ERR_fb_variables_after_method, 1282),
     (sym_ERR_var_access_not_allowed, 3160), (sym_ERR_var_config_not_allowed, 3160),
     (sym_ERR_var_global_not_allowed, 3160), (sym_ERR_method_decl_in_body, 3150),
     (sym_extern_pragma, 7490), (sym_wasm_pragma, 3150), (sym_warn_pragma, 7490),
     (sym_allow_pragma, 3140), (sym_test_pragma, 7490), (sym_once_pragma, 7490),
     (sym_must_call_pragma, 7490), (sym_export_pragma, 7490), (sym_pou_pragma, 7194),
     (sym_direct_variable, 7675), (sym_deref_expression, 2373), (sym_variable, 7599),
     (sym_var_access, 2373), (sym_in_out_decls, 3160), (sym_var_decls, 3160),
     (sym_retain_var_decls, 3160), (sym_temp_var_decls, 3160), (sym_external_var_decls, 3160),
     (sym_global_var_decls, 2947), (sym_loc_partly_var_decl, 3160), (sym__fb_variables, 2347),
     (sym_fb_input_decls, 3160), (sym_fb_output_decls, 3160), (sym_no_retain_var_decls, 3160),
     (sym_fb_body, 9093), (sym_method_decl, 542), (sym_prog_access_decls, 3043), (sym_SFC, 7970),
     (sym_SFC_network, 7612), (sym_initial_step, 7439), (sym_config_init, 3047),
     (sym_variable_access, 7530), (sym_func_call, 2961), (sym_stmt_list, 7970), (sym__stmt, 2024),
     (sym_assign, 3150), (sym_if_stmt, 3150), (sym_case_stmt, 3150), (sym_for_stmt, 3150),
     (sym_while_stmt, 3150), (sym_repeat_stmt, 3150), (sym_raise_stmt, 3150), (sym_try_stmt, 3150),
     (sym_ERR_clause_outside_try, 3150), (sym_begin_path_expression, 2943), (sym_invocation, 2934),
     (sym_any_invocation, 2935), (sym_this_invocation, 2641), (sym_super_invocation, 2641),
     (sym_super_body_invocation, 2935), (sym_path_expression, 2627), (sym_field_expression, 2373),
     (sym_index_expression, 2373), (sym_ladder_diagram, 7970), (sym_fb_diagram, 7970),
     (aux_sym_ERR_fb_variables_after_method_repeat1, 2347), (aux_sym_func_decl_repeat1, 7194),
     (aux_sym_fb_decl_repeat3, 542), (aux_sym_SFC_repeat1, 7612), (aux_sym_stmt_list_repeat1, 2024),
     (aux_sym_ladder_diagram_repeat1, 8009), (aux_sym_fb_diagram_repeat1, 8013),
     (sym_identifier, 298), (aux_sym_ERR_unexpected_this_in_path_token1, 304),
     (aux_sym_ERR_unexpected_super_in_path_token1, 306), (sym_line_comment, 3),
     (anon_sym_LBRACE, 308), (aux_sym_test_pragma_token1, 9), (aux_sym_once_pragma_token1, 11),
     (aux_sym_must_call_pragma_token1, 13), (aux_sym_export_pragma_token1, 15),
     (anon_sym_SEMI, 310), (anon_sym_PERCENT, 312), (aux_sym_input_decls_token1, 314),
     (aux_sym_output_decls_token1, 316), (aux_sym_in_out_decls_token1, 318),
     (aux_sym_var_decls_token1, 320), (aux_sym_temp_var_decls_token1, 322),
     (aux_sym_external_var_decls_token1, 324), (aux_sym_global_var_decls_token1, 326),
     (aux_sym_fb_decl_token4, 1134), (aux_sym_method_decl_token1, 330),
     (aux_sym_prog_access_decls_token1, 332), (aux_sym_initial_step_token1, 334),
     (aux_sym_config_init_token1, 336), (aux_sym__stmt_token1, 340), (aux_sym__stmt_token2, 340),
     (aux_sym__stmt_token3, 340), (aux_sym_if_stmt_token1, 342), (aux_sym_case_stmt_token1, 344),
     (aux_sym_for_stmt_token1, 346), (aux_sym_while_stmt_token1, 348),
     (aux_sym_repeat_stmt_token1, 350), (aux_sym_raise_stmt_token1, 352),
     (aux_sym_try_stmt_token1, 354), (aux_sym_try_stmt_token2, 356),
     (aux_sym_catch_clause_token1, 356), (aux_sym_finally_clause_token1, 356), (sym_ld_rung, 358),
     (sym_fbd_network, 360), (sym_c_style_comment, 3), (sym_pascal_style_comment, 3),
     (sym_pragma, 3)]"

lemma ts_parse_row_402_scan: "row_scan tokens_63_2 0 ts_parse_row_402 = Some (Suc (Suc (Suc (Suc 0))))"
  unfolding ts_parse_row_402_def by simp

text \<open>Lines 100748 to 100860.\<close>

definition ts_parse_row_403 :: parse_row where
  "ts_parse_row_403 =
    [(sym_ERR_assign_func_call, 7530), (sym_ERR_unexpected_this_in_path, 2372),
     (sym_ERR_unexpected_super_in_path, 2372), (sym_ERR_fb_variables_after_method, 1283),
     (sym_ERR_var_access_not_allowed, 3160), (sym_ERR_var_config_not_allowed, 3160),
     (sym_ERR_var_global_not_allowed, 3160), (sym_ERR_method_decl_in_body, 3150),
     (sym_extern_pragma, 7490), (sym_wasm_pragma, 3150), (sym_warn_pragma, 7490),
     (sym_allow_pragma, 3140), (sym_test_pragma, 7490), (sym_once_pragma, 7490),
     (sym_must_call_pragma, 7490), (sym_export_pragma, 7490), (sym_pou_pragma, 7194),
     (sym_direct_variable, 7675), (sym_deref_expression, 2373), (sym_variable, 7599),
     (sym_var_access, 2373), (sym_in_out_decls, 3160), (sym_var_decls, 3160),
     (sym_retain_var_decls, 3160), (sym_temp_var_decls, 3160), (sym_external_var_decls, 3160),
     (sym_global_var_decls, 2947), (sym_loc_partly_var_decl, 3160), (sym__fb_variables, 2343),
     (sym_fb_input_decls, 3160), (sym_fb_output_decls, 3160), (sym_no_retain_var_decls, 3160),
     (sym_fb_body, 9100), (sym_method_decl, 2549), (sym_prog_access_decls, 3043), (sym_SFC, 7970),
     (sym_SFC_network, 7612), (sym_initial_step, 7439), (sym_config_init, 3047),
     (sym_variable_access, 7530), (sym_func_call, 2961), (sym_stmt_list, 7970), (sym__stmt, 2024),
     (sym_assign, 3150), (sym_if_stmt, 3150), (sym_case_stmt, 3150), (sym_for_stmt, 3150),
     (sym_while_stmt, 3150), (sym_repeat_stmt, 3150), (sym_raise_stmt, 3150), (sym_try_stmt, 3150),
     (sym_ERR_clause_outside_try, 3150), (sym_begin_path_expression, 2943), (sym_invocation, 2934),
     (sym_any_invocation, 2935), (sym_this_invocation, 2641), (sym_super_invocation, 2641),
     (sym_super_body_invocation, 2935), (sym_path_expression, 2627), (sym_field_expression, 2373),
     (sym_index_expression, 2373), (sym_ladder_diagram, 7970), (sym_fb_diagram, 7970),
     (aux_sym_ERR_fb_variables_after_method_repeat1, 2343), (aux_sym_func_decl_repeat1, 7194),
     (aux_sym_fb_decl_repeat3, 2549), (aux_sym_SFC_repeat1, 7612),
     (aux_sym_stmt_list_repeat1, 2024), (aux_sym_ladder_diagram_repeat1, 8009),
     (aux_sym_fb_diagram_repeat1, 8013), (sym_identifier, 298),
     (aux_sym_ERR_unexpected_this_in_path_token1, 304),
     (aux_sym_ERR_unexpected_super_in_path_token1, 306), (sym_line_comment, 3),
     (anon_sym_LBRACE, 308), (aux_sym_test_pragma_token1, 9), (aux_sym_once_pragma_token1, 11),
     (aux_sym_must_call_pragma_token1, 13), (aux_sym_export_pragma_token1, 15),
     (anon_sym_SEMI, 310), (anon_sym_PERCENT, 312), (aux_sym_input_decls_token1, 314),
     (aux_sym_output_decls_token1, 316), (aux_sym_in_out_decls_token1, 318),
     (aux_sym_var_decls_token1, 320), (aux_sym_temp_var_decls_token1, 322),
     (aux_sym_external_var_decls_token1, 324), (aux_sym_global_var_decls_token1, 326),
     (aux_sym_fb_decl_token4, 1136), (aux_sym_method_decl_token1, 330),
     (aux_sym_prog_access_decls_token1, 332), (aux_sym_initial_step_token1, 334),
     (aux_sym_config_init_token1, 336), (aux_sym__stmt_token1, 340), (aux_sym__stmt_token2, 340),
     (aux_sym__stmt_token3, 340), (aux_sym_if_stmt_token1, 342), (aux_sym_case_stmt_token1, 344),
     (aux_sym_for_stmt_token1, 346), (aux_sym_while_stmt_token1, 348),
     (aux_sym_repeat_stmt_token1, 350), (aux_sym_raise_stmt_token1, 352),
     (aux_sym_try_stmt_token1, 354), (aux_sym_try_stmt_token2, 356),
     (aux_sym_catch_clause_token1, 356), (aux_sym_finally_clause_token1, 356), (sym_ld_rung, 358),
     (sym_fbd_network, 360), (sym_c_style_comment, 3), (sym_pascal_style_comment, 3),
     (sym_pragma, 3)]"

lemma ts_parse_row_403_scan: "row_scan tokens_63_2 0 ts_parse_row_403 = Some (Suc (Suc (Suc (Suc 0))))"
  unfolding ts_parse_row_403_def by simp

text \<open>Lines 100861 to 100973.\<close>

definition ts_parse_row_404 :: parse_row where
  "ts_parse_row_404 =
    [(sym_ERR_assign_func_call, 7530), (sym_ERR_unexpected_this_in_path, 2372),
     (sym_ERR_unexpected_super_in_path, 2372), (sym_ERR_fb_variables_after_method, 1284),
     (sym_ERR_var_access_not_allowed, 3160), (sym_ERR_var_config_not_allowed, 3160),
     (sym_ERR_var_global_not_allowed, 3160), (sym_ERR_method_decl_in_body, 3150),
     (sym_extern_pragma, 7490), (sym_wasm_pragma, 3150), (sym_warn_pragma, 7490),
     (sym_allow_pragma, 3140), (sym_test_pragma, 7490), (sym_once_pragma, 7490),
     (sym_must_call_pragma, 7490), (sym_export_pragma, 7490), (sym_pou_pragma, 7194),
     (sym_direct_variable, 7675), (sym_deref_expression, 2373), (sym_variable, 7599),
     (sym_var_access, 2373), (sym_in_out_decls, 3160), (sym_var_decls, 3160),
     (sym_retain_var_decls, 3160), (sym_temp_var_decls, 3160), (sym_external_var_decls, 3160),
     (sym_global_var_decls, 2947), (sym_loc_partly_var_decl, 3160), (sym__fb_variables, 2347),
     (sym_fb_input_decls, 3160), (sym_fb_output_decls, 3160), (sym_no_retain_var_decls, 3160),
     (sym_fb_body, 9110), (sym_method_decl, 543), (sym_prog_access_decls, 3043), (sym_SFC, 7970),
     (sym_SFC_network, 7612), (sym_initial_step, 7439), (sym_config_init, 3047),
     (sym_variable_access, 7530), (sym_func_call, 2961), (sym_stmt_list, 7970), (sym__stmt, 2024),
     (sym_assign, 3150), (sym_if_stmt, 3150), (sym_case_stmt, 3150), (sym_for_stmt, 3150),
     (sym_while_stmt, 3150), (sym_repeat_stmt, 3150), (sym_raise_stmt, 3150), (sym_try_stmt, 3150),
     (sym_ERR_clause_outside_try, 3150), (sym_begin_path_expression, 2943), (sym_invocation, 2934),
     (sym_any_invocation, 2935), (sym_this_invocation, 2641), (sym_super_invocation, 2641),
     (sym_super_body_invocation, 2935), (sym_path_expression, 2627), (sym_field_expression, 2373),
     (sym_index_expression, 2373), (sym_ladder_diagram, 7970), (sym_fb_diagram, 7970),
     (aux_sym_ERR_fb_variables_after_method_repeat1, 2347), (aux_sym_func_decl_repeat1, 7194),
     (aux_sym_fb_decl_repeat3, 543), (aux_sym_SFC_repeat1, 7612), (aux_sym_stmt_list_repeat1, 2024),
     (aux_sym_ladder_diagram_repeat1, 8009), (aux_sym_fb_diagram_repeat1, 8013),
     (sym_identifier, 298), (aux_sym_ERR_unexpected_this_in_path_token1, 304),
     (aux_sym_ERR_unexpected_super_in_path_token1, 306), (sym_line_comment, 3),
     (anon_sym_LBRACE, 308), (aux_sym_test_pragma_token1, 9), (aux_sym_once_pragma_token1, 11),
     (aux_sym_must_call_pragma_token1, 13), (aux_sym_export_pragma_token1, 15),
     (anon_sym_SEMI, 310), (anon_sym_PERCENT, 312), (aux_sym_input_decls_token1, 314),
     (aux_sym_output_decls_token1, 316), (aux_sym_in_out_decls_token1, 318),
     (aux_sym_var_decls_token1, 320), (aux_sym_temp_var_decls_token1, 322),
     (aux_sym_external_var_decls_token1, 324), (aux_sym_global_var_decls_token1, 326),
     (aux_sym_fb_decl_token4, 1138), (aux_sym_method_decl_token1, 330),
     (aux_sym_prog_access_decls_token1, 332), (aux_sym_initial_step_token1, 334),
     (aux_sym_config_init_token1, 336), (aux_sym__stmt_token1, 340), (aux_sym__stmt_token2, 340),
     (aux_sym__stmt_token3, 340), (aux_sym_if_stmt_token1, 342), (aux_sym_case_stmt_token1, 344),
     (aux_sym_for_stmt_token1, 346), (aux_sym_while_stmt_token1, 348),
     (aux_sym_repeat_stmt_token1, 350), (aux_sym_raise_stmt_token1, 352),
     (aux_sym_try_stmt_token1, 354), (aux_sym_try_stmt_token2, 356),
     (aux_sym_catch_clause_token1, 356), (aux_sym_finally_clause_token1, 356), (sym_ld_rung, 358),
     (sym_fbd_network, 360), (sym_c_style_comment, 3), (sym_pascal_style_comment, 3),
     (sym_pragma, 3)]"

lemma ts_parse_row_404_scan: "row_scan tokens_63_2 0 ts_parse_row_404 = Some (Suc (Suc (Suc (Suc 0))))"
  unfolding ts_parse_row_404_def by simp

text \<open>Lines 100974 to 101086.\<close>

definition ts_parse_row_405 :: parse_row where
  "ts_parse_row_405 =
    [(sym_ERR_assign_func_call, 7530), (sym_ERR_unexpected_this_in_path, 2372),
     (sym_ERR_unexpected_super_in_path, 2372), (sym_ERR_fb_variables_after_method, 1621),
     (sym_ERR_var_access_not_allowed, 3160), (sym_ERR_var_config_not_allowed, 3160),
     (sym_ERR_var_global_not_allowed, 3160), (sym_ERR_method_decl_in_body, 3150),
     (sym_extern_pragma, 7490), (sym_wasm_pragma, 3150), (sym_warn_pragma, 7490),
     (sym_allow_pragma, 3140), (sym_test_pragma, 7490), (sym_once_pragma, 7490),
     (sym_must_call_pragma, 7490), (sym_export_pragma, 7490), (sym_pou_pragma, 7194),
     (sym_direct_variable, 7675), (sym_deref_expression, 2373), (sym_variable, 7599),
     (sym_var_access, 2373), (sym_in_out_decls, 3160), (sym_var_decls, 3160),
     (sym_retain_var_decls, 3160), (sym_temp_var_decls, 3160), (sym_external_var_decls, 3160),
     (sym_global_var_decls, 2947), (sym_loc_partly_var_decl, 3160), (sym__fb_variables, 2347),
     (sym_fb_input_decls, 3160), (sym_fb_output_decls, 3160), (sym_no_retain_var_decls, 3160),
     (sym_fb_body, 10097), (sym_method_decl, 867), (sym_prog_access_decls, 3043), (sym_SFC, 7970),
     (sym_SFC_network, 7612), (sym_initial_step, 7439), (sym_config_init, 3047),
     (sym_variable_access, 7530), (sym_func_call, 2961), (sym_stmt_list, 7970), (sym__stmt, 2024),
     (sym_assign, 3150), (sym_if_stmt, 3150), (sym_case_stmt, 3150), (sym_for_stmt, 3150),
     (sym_while_stmt, 3150), (sym_repeat_stmt, 3150), (sym_raise_stmt, 3150), (sym_try_stmt, 3150),
     (sym_ERR_clause_outside_try, 3150), (sym_begin_path_expression, 2943), (sym_invocation, 2934),
     (sym_any_invocation, 2935), (sym_this_invocation, 2641), (sym_super_invocation, 2641),
     (sym_super_body_invocation, 2935), (sym_path_expression, 2627), (sym_field_expression, 2373),
     (sym_index_expression, 2373), (sym_ladder_diagram, 7970), (sym_fb_diagram, 7970),
     (aux_sym_ERR_fb_variables_after_method_repeat1, 2347), (aux_sym_func_decl_repeat1, 7194),
     (aux_sym_fb_decl_repeat3, 867), (aux_sym_SFC_repeat1, 7612), (aux_sym_stmt_list_repeat1, 2024),
     (aux_sym_ladder_diagram_repeat1, 8009), (aux_sym_fb_diagram_repeat1, 8013),
     (sym_identifier, 298), (aux_sym_ERR_unexpected_this_in_path_token1, 304),
     (aux_sym_ERR_unexpected_super_in_path_token1, 306), (sym_line_comment, 3),
     (anon_sym_LBRACE, 308), (aux_sym_test_pragma_token1, 9), (aux_sym_once_pragma_token1, 11),
     (aux_sym_must_call_pragma_token1, 13), (aux_sym_export_pragma_token1, 15),
     (anon_sym_SEMI, 310), (anon_sym_PERCENT, 312), (aux_sym_input_decls_token1, 314),
     (aux_sym_output_decls_token1, 316), (aux_sym_in_out_decls_token1, 318),
     (aux_sym_var_decls_token1, 320), (aux_sym_temp_var_decls_token1, 322),
     (aux_sym_external_var_decls_token1, 324), (aux_sym_global_var_decls_token1, 326),
     (aux_sym_fb_decl_token4, 1140), (aux_sym_method_decl_token1, 330),
     (aux_sym_prog_access_decls_token1, 332), (aux_sym_initial_step_token1, 334),
     (aux_sym_config_init_token1, 336), (aux_sym__stmt_token1, 340), (aux_sym__stmt_token2, 340),
     (aux_sym__stmt_token3, 340), (aux_sym_if_stmt_token1, 342), (aux_sym_case_stmt_token1, 344),
     (aux_sym_for_stmt_token1, 346), (aux_sym_while_stmt_token1, 348),
     (aux_sym_repeat_stmt_token1, 350), (aux_sym_raise_stmt_token1, 352),
     (aux_sym_try_stmt_token1, 354), (aux_sym_try_stmt_token2, 356),
     (aux_sym_catch_clause_token1, 356), (aux_sym_finally_clause_token1, 356), (sym_ld_rung, 358),
     (sym_fbd_network, 360), (sym_c_style_comment, 3), (sym_pascal_style_comment, 3),
     (sym_pragma, 3)]"

lemma ts_parse_row_405_scan: "row_scan tokens_63_2 0 ts_parse_row_405 = Some (Suc (Suc (Suc (Suc 0))))"
  unfolding ts_parse_row_405_def by simp

text \<open>Lines 101087 to 101199.\<close>

definition ts_parse_row_406 :: parse_row where
  "ts_parse_row_406 =
    [(sym_ERR_assign_func_call, 7530), (sym_ERR_unexpected_this_in_path, 2372),
     (sym_ERR_unexpected_super_in_path, 2372), (sym_ERR_fb_variables_after_method, 1287),
     (sym_ERR_var_access_not_allowed, 3160), (sym_ERR_var_config_not_allowed, 3160),
     (sym_ERR_var_global_not_allowed, 3160), (sym_ERR_method_decl_in_body, 3150),
     (sym_extern_pragma, 7490), (sym_wasm_pragma, 3150), (sym_warn_pragma, 7490),
     (sym_allow_pragma, 3140), (sym_test_pragma, 7490), (sym_once_pragma, 7490),
     (sym_must_call_pragma, 7490), (sym_export_pragma, 7490), (sym_pou_pragma, 7194),
     (sym_direct_variable, 7675), (sym_deref_expression, 2373), (sym_variable, 7599),
     (sym_var_access, 2373), (sym_in_out_decls, 3160), (sym_var_decls, 3160),
     (sym_retain_var_decls, 3160), (sym_temp_var_decls, 3160), (sym_external_var_decls, 3160),
     (sym_global_var_decls, 2947), (sym_loc_partly_var_decl, 3160), (sym__fb_variables, 2343),
     (sym_fb_input_decls, 3160), (sym_fb_output_decls, 3160), (sym_no_retain_var_decls, 3160),
     (sym_fb_body, 9128), (sym_method_decl, 2549), (sym_prog_access_decls, 3043), (sym_SFC, 7970),
     (sym_SFC_network, 7612), (sym_initial_step, 7439), (sym_config_init, 3047),
     (sym_variable_access, 7530), (sym_func_call, 2961), (sym_stmt_list, 7970), (sym__stmt, 2024),
     (sym_assign, 3150), (sym_if_stmt, 3150), (sym_case_stmt, 3150), (sym_for_stmt, 3150),
     (sym_while_stmt, 3150), (sym_repeat_stmt, 3150), (sym_raise_stmt, 3150), (sym_try_stmt, 3150),
     (sym_ERR_clause_outside_try, 3150), (sym_begin_path_expression, 2943), (sym_invocation, 2934),
     (sym_any_invocation, 2935), (sym_this_invocation, 2641), (sym_super_invocation, 2641),
     (sym_super_body_invocation, 2935), (sym_path_expression, 2627), (sym_field_expression, 2373),
     (sym_index_expression, 2373), (sym_ladder_diagram, 7970), (sym_fb_diagram, 7970),
     (aux_sym_ERR_fb_variables_after_method_repeat1, 2343), (aux_sym_func_decl_repeat1, 7194),
     (aux_sym_fb_decl_repeat3, 2549), (aux_sym_SFC_repeat1, 7612),
     (aux_sym_stmt_list_repeat1, 2024), (aux_sym_ladder_diagram_repeat1, 8009),
     (aux_sym_fb_diagram_repeat1, 8013), (sym_identifier, 298),
     (aux_sym_ERR_unexpected_this_in_path_token1, 304),
     (aux_sym_ERR_unexpected_super_in_path_token1, 306), (sym_line_comment, 3),
     (anon_sym_LBRACE, 308), (aux_sym_test_pragma_token1, 9), (aux_sym_once_pragma_token1, 11),
     (aux_sym_must_call_pragma_token1, 13), (aux_sym_export_pragma_token1, 15),
     (anon_sym_SEMI, 310), (anon_sym_PERCENT, 312), (aux_sym_input_decls_token1, 314),
     (aux_sym_output_decls_token1, 316), (aux_sym_in_out_decls_token1, 318),
     (aux_sym_var_decls_token1, 320), (aux_sym_temp_var_decls_token1, 322),
     (aux_sym_external_var_decls_token1, 324), (aux_sym_global_var_decls_token1, 326),
     (aux_sym_fb_decl_token4, 1142), (aux_sym_method_decl_token1, 330),
     (aux_sym_prog_access_decls_token1, 332), (aux_sym_initial_step_token1, 334),
     (aux_sym_config_init_token1, 336), (aux_sym__stmt_token1, 340), (aux_sym__stmt_token2, 340),
     (aux_sym__stmt_token3, 340), (aux_sym_if_stmt_token1, 342), (aux_sym_case_stmt_token1, 344),
     (aux_sym_for_stmt_token1, 346), (aux_sym_while_stmt_token1, 348),
     (aux_sym_repeat_stmt_token1, 350), (aux_sym_raise_stmt_token1, 352),
     (aux_sym_try_stmt_token1, 354), (aux_sym_try_stmt_token2, 356),
     (aux_sym_catch_clause_token1, 356), (aux_sym_finally_clause_token1, 356), (sym_ld_rung, 358),
     (sym_fbd_network, 360), (sym_c_style_comment, 3), (sym_pascal_style_comment, 3),
     (sym_pragma, 3)]"

lemma ts_parse_row_406_scan: "row_scan tokens_63_2 0 ts_parse_row_406 = Some (Suc (Suc (Suc (Suc 0))))"
  unfolding ts_parse_row_406_def by simp

text \<open>Lines 101200 to 101312.\<close>

definition ts_parse_row_407 :: parse_row where
  "ts_parse_row_407 =
    [(sym_ERR_assign_func_call, 7530), (sym_ERR_unexpected_this_in_path, 2372),
     (sym_ERR_unexpected_super_in_path, 2372), (sym_ERR_fb_variables_after_method, 1288),
     (sym_ERR_var_access_not_allowed, 3160), (sym_ERR_var_config_not_allowed, 3160),
     (sym_ERR_var_global_not_allowed, 3160), (sym_ERR_method_decl_in_body, 3150),
     (sym_extern_pragma, 7490), (sym_wasm_pragma, 3150), (sym_warn_pragma, 7490),
     (sym_allow_pragma, 3140), (sym_test_pragma, 7490), (sym_once_pragma, 7490),
     (sym_must_call_pragma, 7490), (sym_export_pragma, 7490), (sym_pou_pragma, 7194),
     (sym_direct_variable, 7675), (sym_deref_expression, 2373), (sym_variable, 7599),
     (sym_var_access, 2373), (sym_in_out_decls, 3160), (sym_var_decls, 3160),
     (sym_retain_var_decls, 3160), (sym_temp_var_decls, 3160), (sym_external_var_decls, 3160),
     (sym_global_var_decls, 2947), (sym_loc_partly_var_decl, 3160), (sym__fb_variables, 2343),
     (sym_fb_input_decls, 3160), (sym_fb_output_decls, 3160), (sym_no_retain_var_decls, 3160),
     (sym_fb_body, 9162), (sym_method_decl, 2549), (sym_prog_access_decls, 3043), (sym_SFC, 7970),
     (sym_SFC_network, 7612), (sym_initial_step, 7439), (sym_config_init, 3047),
     (sym_variable_access, 7530), (sym_func_call, 2961), (sym_stmt_list, 7970), (sym__stmt, 2024),
     (sym_assign, 3150), (sym_if_stmt, 3150), (sym_case_stmt, 3150), (sym_for_stmt, 3150),
     (sym_while_stmt, 3150), (sym_repeat_stmt, 3150), (sym_raise_stmt, 3150), (sym_try_stmt, 3150),
     (sym_ERR_clause_outside_try, 3150), (sym_begin_path_expression, 2943), (sym_invocation, 2934),
     (sym_any_invocation, 2935), (sym_this_invocation, 2641), (sym_super_invocation, 2641),
     (sym_super_body_invocation, 2935), (sym_path_expression, 2627), (sym_field_expression, 2373),
     (sym_index_expression, 2373), (sym_ladder_diagram, 7970), (sym_fb_diagram, 7970),
     (aux_sym_ERR_fb_variables_after_method_repeat1, 2343), (aux_sym_func_decl_repeat1, 7194),
     (aux_sym_fb_decl_repeat3, 2549), (aux_sym_SFC_repeat1, 7612),
     (aux_sym_stmt_list_repeat1, 2024), (aux_sym_ladder_diagram_repeat1, 8009),
     (aux_sym_fb_diagram_repeat1, 8013), (sym_identifier, 298),
     (aux_sym_ERR_unexpected_this_in_path_token1, 304),
     (aux_sym_ERR_unexpected_super_in_path_token1, 306), (sym_line_comment, 3),
     (anon_sym_LBRACE, 308), (aux_sym_test_pragma_token1, 9), (aux_sym_once_pragma_token1, 11),
     (aux_sym_must_call_pragma_token1, 13), (aux_sym_export_pragma_token1, 15),
     (anon_sym_SEMI, 310), (anon_sym_PERCENT, 312), (aux_sym_input_decls_token1, 314),
     (aux_sym_output_decls_token1, 316), (aux_sym_in_out_decls_token1, 318),
     (aux_sym_var_decls_token1, 320), (aux_sym_temp_var_decls_token1, 322),
     (aux_sym_external_var_decls_token1, 324), (aux_sym_global_var_decls_token1, 326),
     (aux_sym_fb_decl_token4, 1144), (aux_sym_method_decl_token1, 330),
     (aux_sym_prog_access_decls_token1, 332), (aux_sym_initial_step_token1, 334),
     (aux_sym_config_init_token1, 336), (aux_sym__stmt_token1, 340), (aux_sym__stmt_token2, 340),
     (aux_sym__stmt_token3, 340), (aux_sym_if_stmt_token1, 342), (aux_sym_case_stmt_token1, 344),
     (aux_sym_for_stmt_token1, 346), (aux_sym_while_stmt_token1, 348),
     (aux_sym_repeat_stmt_token1, 350), (aux_sym_raise_stmt_token1, 352),
     (aux_sym_try_stmt_token1, 354), (aux_sym_try_stmt_token2, 356),
     (aux_sym_catch_clause_token1, 356), (aux_sym_finally_clause_token1, 356), (sym_ld_rung, 358),
     (sym_fbd_network, 360), (sym_c_style_comment, 3), (sym_pascal_style_comment, 3),
     (sym_pragma, 3)]"

lemma ts_parse_row_407_scan: "row_scan tokens_63_2 0 ts_parse_row_407 = Some (Suc (Suc (Suc (Suc 0))))"
  unfolding ts_parse_row_407_def by simp

text \<open>Lines 101313 to 101425.\<close>

definition ts_parse_row_408 :: parse_row where
  "ts_parse_row_408 =
    [(sym_ERR_assign_func_call, 7530), (sym_ERR_unexpected_this_in_path, 2372),
     (sym_ERR_unexpected_super_in_path, 2372), (sym_ERR_fb_variables_after_method, 1289),
     (sym_ERR_var_access_not_allowed, 3160), (sym_ERR_var_config_not_allowed, 3160),
     (sym_ERR_var_global_not_allowed, 3160), (sym_ERR_method_decl_in_body, 3150),
     (sym_extern_pragma, 7490), (sym_wasm_pragma, 3150), (sym_warn_pragma, 7490),
     (sym_allow_pragma, 3140), (sym_test_pragma, 7490), (sym_once_pragma, 7490),
     (sym_must_call_pragma, 7490), (sym_export_pragma, 7490), (sym_pou_pragma, 7194),
     (sym_direct_variable, 7675), (sym_deref_expression, 2373), (sym_variable, 7599),
     (sym_var_access, 2373), (sym_in_out_decls, 3160), (sym_var_decls, 3160),
     (sym_retain_var_decls, 3160), (sym_temp_var_decls, 3160), (sym_external_var_decls, 3160),
     (sym_global_var_decls, 2947), (sym_loc_partly_var_decl, 3160), (sym__fb_variables, 2343),
     (sym_fb_input_decls, 3160), (sym_fb_output_decls, 3160), (sym_no_retain_var_decls, 3160),
     (sym_fb_body, 9683), (sym_method_decl, 2549), (sym_prog_access_decls, 3043), (sym_SFC, 7970),
     (sym_SFC_network, 7612), (sym_initial_step, 7439), (sym_config_init, 3047),
     (sym_variable_access, 7530), (sym_func_call, 2961), (sym_stmt_list, 7970), (sym__stmt, 2024),
     (sym_assign, 3150), (sym_if_stmt, 3150), (sym_case_stmt, 3150), (sym_for_stmt, 3150),
     (sym_while_stmt, 3150), (sym_repeat_stmt, 3150), (sym_raise_stmt, 3150), (sym_try_stmt, 3150),
     (sym_ERR_clause_outside_try, 3150), (sym_begin_path_expression, 2943), (sym_invocation, 2934),
     (sym_any_invocation, 2935), (sym_this_invocation, 2641), (sym_super_invocation, 2641),
     (sym_super_body_invocation, 2935), (sym_path_expression, 2627), (sym_field_expression, 2373),
     (sym_index_expression, 2373), (sym_ladder_diagram, 7970), (sym_fb_diagram, 7970),
     (aux_sym_ERR_fb_variables_after_method_repeat1, 2343), (aux_sym_func_decl_repeat1, 7194),
     (aux_sym_fb_decl_repeat3, 2549), (aux_sym_SFC_repeat1, 7612),
     (aux_sym_stmt_list_repeat1, 2024), (aux_sym_ladder_diagram_repeat1, 8009),
     (aux_sym_fb_diagram_repeat1, 8013), (sym_identifier, 298),
     (aux_sym_ERR_unexpected_this_in_path_token1, 304),
     (aux_sym_ERR_unexpected_super_in_path_token1, 306), (sym_line_comment, 3),
     (anon_sym_LBRACE, 308), (aux_sym_test_pragma_token1, 9), (aux_sym_once_pragma_token1, 11),
     (aux_sym_must_call_pragma_token1, 13), (aux_sym_export_pragma_token1, 15),
     (anon_sym_SEMI, 310), (anon_sym_PERCENT, 312), (aux_sym_input_decls_token1, 314),
     (aux_sym_output_decls_token1, 316), (aux_sym_in_out_decls_token1, 318),
     (aux_sym_var_decls_token1, 320), (aux_sym_temp_var_decls_token1, 322),
     (aux_sym_external_var_decls_token1, 324), (aux_sym_global_var_decls_token1, 326),
     (aux_sym_fb_decl_token4, 1146), (aux_sym_method_decl_token1, 330),
     (aux_sym_prog_access_decls_token1, 332), (aux_sym_initial_step_token1, 334),
     (aux_sym_config_init_token1, 336), (aux_sym__stmt_token1, 340), (aux_sym__stmt_token2, 340),
     (aux_sym__stmt_token3, 340), (aux_sym_if_stmt_token1, 342), (aux_sym_case_stmt_token1, 344),
     (aux_sym_for_stmt_token1, 346), (aux_sym_while_stmt_token1, 348),
     (aux_sym_repeat_stmt_token1, 350), (aux_sym_raise_stmt_token1, 352),
     (aux_sym_try_stmt_token1, 354), (aux_sym_try_stmt_token2, 356),
     (aux_sym_catch_clause_token1, 356), (aux_sym_finally_clause_token1, 356), (sym_ld_rung, 358),
     (sym_fbd_network, 360), (sym_c_style_comment, 3), (sym_pascal_style_comment, 3),
     (sym_pragma, 3)]"

lemma ts_parse_row_408_scan: "row_scan tokens_63_2 0 ts_parse_row_408 = Some (Suc (Suc (Suc (Suc 0))))"
  unfolding ts_parse_row_408_def by simp

text \<open>Lines 101426 to 101538.\<close>

definition ts_parse_row_409 :: parse_row where
  "ts_parse_row_409 =
    [(sym_ERR_assign_func_call, 7530), (sym_ERR_unexpected_this_in_path, 2372),
     (sym_ERR_unexpected_super_in_path, 2372), (sym_ERR_fb_variables_after_method, 1290),
     (sym_ERR_var_access_not_allowed, 3160), (sym_ERR_var_config_not_allowed, 3160),
     (sym_ERR_var_global_not_allowed, 3160), (sym_ERR_method_decl_in_body, 3150),
     (sym_extern_pragma, 7490), (sym_wasm_pragma, 3150), (sym_warn_pragma, 7490),
     (sym_allow_pragma, 3140), (sym_test_pragma, 7490), (sym_once_pragma, 7490),
     (sym_must_call_pragma, 7490), (sym_export_pragma, 7490), (sym_pou_pragma, 7194),
     (sym_direct_variable, 7675), (sym_deref_expression, 2373), (sym_variable, 7599),
     (sym_var_access, 2373), (sym_in_out_decls, 3160), (sym_var_decls, 3160),
     (sym_retain_var_decls, 3160), (sym_temp_var_decls, 3160), (sym_external_var_decls, 3160),
     (sym_global_var_decls, 2947), (sym_loc_partly_var_decl, 3160), (sym__fb_variables, 2347),
     (sym_fb_input_decls, 3160), (sym_fb_output_decls, 3160), (sym_no_retain_var_decls, 3160),
     (sym_fb_body, 9691), (sym_method_decl, 546), (sym_prog_access_decls, 3043), (sym_SFC, 7970),
     (sym_SFC_network, 7612), (sym_initial_step, 7439), (sym_config_init, 3047),
     (sym_variable_access, 7530), (sym_func_call, 2961), (sym_stmt_list, 7970), (sym__stmt, 2024),
     (sym_assign, 3150), (sym_if_stmt, 3150), (sym_case_stmt, 3150), (sym_for_stmt, 3150),
     (sym_while_stmt, 3150), (sym_repeat_stmt, 3150), (sym_raise_stmt, 3150), (sym_try_stmt, 3150),
     (sym_ERR_clause_outside_try, 3150), (sym_begin_path_expression, 2943), (sym_invocation, 2934),
     (sym_any_invocation, 2935), (sym_this_invocation, 2641), (sym_super_invocation, 2641),
     (sym_super_body_invocation, 2935), (sym_path_expression, 2627), (sym_field_expression, 2373),
     (sym_index_expression, 2373), (sym_ladder_diagram, 7970), (sym_fb_diagram, 7970),
     (aux_sym_ERR_fb_variables_after_method_repeat1, 2347), (aux_sym_func_decl_repeat1, 7194),
     (aux_sym_fb_decl_repeat3, 546), (aux_sym_SFC_repeat1, 7612), (aux_sym_stmt_list_repeat1, 2024),
     (aux_sym_ladder_diagram_repeat1, 8009), (aux_sym_fb_diagram_repeat1, 8013),
     (sym_identifier, 298), (aux_sym_ERR_unexpected_this_in_path_token1, 304),
     (aux_sym_ERR_unexpected_super_in_path_token1, 306), (sym_line_comment, 3),
     (anon_sym_LBRACE, 308), (aux_sym_test_pragma_token1, 9), (aux_sym_once_pragma_token1, 11),
     (aux_sym_must_call_pragma_token1, 13), (aux_sym_export_pragma_token1, 15),
     (anon_sym_SEMI, 310), (anon_sym_PERCENT, 312), (aux_sym_input_decls_token1, 314),
     (aux_sym_output_decls_token1, 316), (aux_sym_in_out_decls_token1, 318),
     (aux_sym_var_decls_token1, 320), (aux_sym_temp_var_decls_token1, 322),
     (aux_sym_external_var_decls_token1, 324), (aux_sym_global_var_decls_token1, 326),
     (aux_sym_fb_decl_token4, 1148), (aux_sym_method_decl_token1, 330),
     (aux_sym_prog_access_decls_token1, 332), (aux_sym_initial_step_token1, 334),
     (aux_sym_config_init_token1, 336), (aux_sym__stmt_token1, 340), (aux_sym__stmt_token2, 340),
     (aux_sym__stmt_token3, 340), (aux_sym_if_stmt_token1, 342), (aux_sym_case_stmt_token1, 344),
     (aux_sym_for_stmt_token1, 346), (aux_sym_while_stmt_token1, 348),
     (aux_sym_repeat_stmt_token1, 350), (aux_sym_raise_stmt_token1, 352),
     (aux_sym_try_stmt_token1, 354), (aux_sym_try_stmt_token2, 356),
     (aux_sym_catch_clause_token1, 356), (aux_sym_finally_clause_token1, 356), (sym_ld_rung, 358),
     (sym_fbd_network, 360), (sym_c_style_comment, 3), (sym_pascal_style_comment, 3),
     (sym_pragma, 3)]"

lemma ts_parse_row_409_scan: "row_scan tokens_63_2 0 ts_parse_row_409 = Some (Suc (Suc (Suc (Suc 0))))"
  unfolding ts_parse_row_409_def by simp

text \<open>Lines 101539 to 101651.\<close>

definition ts_parse_row_410 :: parse_row where
  "ts_parse_row_410 =
    [(sym_ERR_assign_func_call, 7530), (sym_ERR_unexpected_this_in_path, 2372),
     (sym_ERR_unexpected_super_in_path, 2372), (sym_ERR_fb_variables_after_method, 1292),
     (sym_ERR_var_access_not_allowed, 3160), (sym_ERR_var_config_not_allowed, 3160),
     (sym_ERR_var_global_not_allowed, 3160), (sym_ERR_method_decl_in_body, 3150),
     (sym_extern_pragma, 7490), (sym_wasm_pragma, 3150), (sym_warn_pragma, 7490),
     (sym_allow_pragma, 3140), (sym_test_pragma, 7490), (sym_once_pragma, 7490),
     (sym_must_call_pragma, 7490), (sym_export_pragma, 7490), (sym_pou_pragma, 7194),
     (sym_direct_variable, 7675), (sym_deref_expression, 2373), (sym_variable, 7599),
     (sym_var_access, 2373), (sym_in_out_decls, 3160), (sym_var_decls, 3160),
     (sym_retain_var_decls, 3160), (sym_temp_var_decls, 3160), (sym_external_var_decls, 3160),
     (sym_global_var_decls, 2947), (sym_loc_partly_var_decl, 3160), (sym__fb_variables, 2343),
     (sym_fb_input_decls, 3160), (sym_fb_output_decls, 3160), (sym_no_retain_var_decls, 3160),
     (sym_fb_body, 9696), (sym_method_decl, 2549), (sym_prog_access_decls, 3043), (sym_SFC, 7970),
     (sym_SFC_network, 7612), (sym_initial_step, 7439), (sym_config_init, 3047),
     (sym_variable_access, 7530), (sym_func_call, 2961), (sym_stmt_list, 7970), (sym__stmt, 2024),
     (sym_assign, 3150), (sym_if_stmt, 3150), (sym_case_stmt, 3150), (sym_for_stmt, 3150),
     (sym_while_stmt, 3150), (sym_repeat_stmt, 3150), (sym_raise_stmt, 3150), (sym_try_stmt, 3150),
     (sym_ERR_clause_outside_try, 3150), (sym_begin_path_expression, 2943), (sym_invocation, 2934),
     (sym_any_invocation, 2935), (sym_this_invocation, 2641), (sym_super_invocation, 2641),
     (sym_super_body_invocation, 2935), (sym_path_expression, 2627), (sym_field_expression, 2373),
     (sym_index_expression, 2373), (sym_ladder_diagram, 7970), (sym_fb_diagram, 7970),
     (aux_sym_ERR_fb_variables_after_method_repeat1, 2343), (aux_sym_func_decl_repeat1, 7194),
     (aux_sym_fb_decl_repeat3, 2549), (aux_sym_SFC_repeat1, 7612),
     (aux_sym_stmt_list_repeat1, 2024), (aux_sym_ladder_diagram_repeat1, 8009),
     (aux_sym_fb_diagram_repeat1, 8013), (sym_identifier, 298),
     (aux_sym_ERR_unexpected_this_in_path_token1, 304),
     (aux_sym_ERR_unexpected_super_in_path_token1, 306), (sym_line_comment, 3),
     (anon_sym_LBRACE, 308), (aux_sym_test_pragma_token1, 9), (aux_sym_once_pragma_token1, 11),
     (aux_sym_must_call_pragma_token1, 13), (aux_sym_export_pragma_token1, 15),
     (anon_sym_SEMI, 310), (anon_sym_PERCENT, 312), (aux_sym_input_decls_token1, 314),
     (aux_sym_output_decls_token1, 316), (aux_sym_in_out_decls_token1, 318),
     (aux_sym_var_decls_token1, 320), (aux_sym_temp_var_decls_token1, 322),
     (aux_sym_external_var_decls_token1, 324), (aux_sym_global_var_decls_token1, 326),
     (aux_sym_fb_decl_token4, 1150), (aux_sym_method_decl_token1, 330),
     (aux_sym_prog_access_decls_token1, 332), (aux_sym_initial_step_token1, 334),
     (aux_sym_config_init_token1, 336), (aux_sym__stmt_token1, 340), (aux_sym__stmt_token2, 340),
     (aux_sym__stmt_token3, 340), (aux_sym_if_stmt_token1, 342), (aux_sym_case_stmt_token1, 344),
     (aux_sym_for_stmt_token1, 346), (aux_sym_while_stmt_token1, 348),
     (aux_sym_repeat_stmt_token1, 350), (aux_sym_raise_stmt_token1, 352),
     (aux_sym_try_stmt_token1, 354), (aux_sym_try_stmt_token2, 356),
     (aux_sym_catch_clause_token1, 356), (aux_sym_finally_clause_token1, 356), (sym_ld_rung, 358),
     (sym_fbd_network, 360), (sym_c_style_comment, 3), (sym_pascal_style_comment, 3),
     (sym_pragma, 3)]"

lemma ts_parse_row_410_scan: "row_scan tokens_63_2 0 ts_parse_row_410 = Some (Suc (Suc (Suc (Suc 0))))"
  unfolding ts_parse_row_410_def by simp

text \<open>Lines 101652 to 101764.\<close>

definition ts_parse_row_411 :: parse_row where
  "ts_parse_row_411 =
    [(sym_ERR_assign_func_call, 7530), (sym_ERR_unexpected_this_in_path, 2372),
     (sym_ERR_unexpected_super_in_path, 2372), (sym_ERR_fb_variables_after_method, 1293),
     (sym_ERR_var_access_not_allowed, 3160), (sym_ERR_var_config_not_allowed, 3160),
     (sym_ERR_var_global_not_allowed, 3160), (sym_ERR_method_decl_in_body, 3150),
     (sym_extern_pragma, 7490), (sym_wasm_pragma, 3150), (sym_warn_pragma, 7490),
     (sym_allow_pragma, 3140), (sym_test_pragma, 7490), (sym_once_pragma, 7490),
     (sym_must_call_pragma, 7490), (sym_export_pragma, 7490), (sym_pou_pragma, 7194),
     (sym_direct_variable, 7675), (sym_deref_expression, 2373), (sym_variable, 7599),
     (sym_var_access, 2373), (sym_in_out_decls, 3160), (sym_var_decls, 3160),
     (sym_retain_var_decls, 3160), (sym_temp_var_decls, 3160), (sym_external_var_decls, 3160),
     (sym_global_var_decls, 2947), (sym_loc_partly_var_decl, 3160), (sym__fb_variables, 2347),
     (sym_fb_input_decls, 3160), (sym_fb_output_decls, 3160), (sym_no_retain_var_decls, 3160),
     (sym_fb_body, 9701), (sym_method_decl, 547), (sym_prog_access_decls, 3043), (sym_SFC, 7970),
     (sym_SFC_network, 7612), (sym_initial_step, 7439), (sym_config_init, 3047),
     (sym_variable_access, 7530), (sym_func_call, 2961), (sym_stmt_list, 7970), (sym__stmt, 2024),
     (sym_assign, 3150), (sym_if_stmt, 3150), (sym_case_stmt, 3150), (sym_for_stmt, 3150),
     (sym_while_stmt, 3150), (sym_repeat_stmt, 3150), (sym_raise_stmt, 3150), (sym_try_stmt, 3150),
     (sym_ERR_clause_outside_try, 3150), (sym_begin_path_expression, 2943), (sym_invocation, 2934),
     (sym_any_invocation, 2935), (sym_this_invocation, 2641), (sym_super_invocation, 2641),
     (sym_super_body_invocation, 2935), (sym_path_expression, 2627), (sym_field_expression, 2373),
     (sym_index_expression, 2373), (sym_ladder_diagram, 7970), (sym_fb_diagram, 7970),
     (aux_sym_ERR_fb_variables_after_method_repeat1, 2347), (aux_sym_func_decl_repeat1, 7194),
     (aux_sym_fb_decl_repeat3, 547), (aux_sym_SFC_repeat1, 7612), (aux_sym_stmt_list_repeat1, 2024),
     (aux_sym_ladder_diagram_repeat1, 8009), (aux_sym_fb_diagram_repeat1, 8013),
     (sym_identifier, 298), (aux_sym_ERR_unexpected_this_in_path_token1, 304),
     (aux_sym_ERR_unexpected_super_in_path_token1, 306), (sym_line_comment, 3),
     (anon_sym_LBRACE, 308), (aux_sym_test_pragma_token1, 9), (aux_sym_once_pragma_token1, 11),
     (aux_sym_must_call_pragma_token1, 13), (aux_sym_export_pragma_token1, 15),
     (anon_sym_SEMI, 310), (anon_sym_PERCENT, 312), (aux_sym_input_decls_token1, 314),
     (aux_sym_output_decls_token1, 316), (aux_sym_in_out_decls_token1, 318),
     (aux_sym_var_decls_token1, 320), (aux_sym_temp_var_decls_token1, 322),
     (aux_sym_external_var_decls_token1, 324), (aux_sym_global_var_decls_token1, 326),
     (aux_sym_fb_decl_token4, 1152), (aux_sym_method_decl_token1, 330),
     (aux_sym_prog_access_decls_token1, 332), (aux_sym_initial_step_token1, 334),
     (aux_sym_config_init_token1, 336), (aux_sym__stmt_token1, 340), (aux_sym__stmt_token2, 340),
     (aux_sym__stmt_token3, 340), (aux_sym_if_stmt_token1, 342), (aux_sym_case_stmt_token1, 344),
     (aux_sym_for_stmt_token1, 346), (aux_sym_while_stmt_token1, 348),
     (aux_sym_repeat_stmt_token1, 350), (aux_sym_raise_stmt_token1, 352),
     (aux_sym_try_stmt_token1, 354), (aux_sym_try_stmt_token2, 356),
     (aux_sym_catch_clause_token1, 356), (aux_sym_finally_clause_token1, 356), (sym_ld_rung, 358),
     (sym_fbd_network, 360), (sym_c_style_comment, 3), (sym_pascal_style_comment, 3),
     (sym_pragma, 3)]"

lemma ts_parse_row_411_scan: "row_scan tokens_63_2 0 ts_parse_row_411 = Some (Suc (Suc (Suc (Suc 0))))"
  unfolding ts_parse_row_411_def by simp

text \<open>Lines 101765 to 101877.\<close>

definition ts_parse_row_412 :: parse_row where
  "ts_parse_row_412 =
    [(sym_ERR_assign_func_call, 7530), (sym_ERR_unexpected_this_in_path, 2372),
     (sym_ERR_unexpected_super_in_path, 2372), (sym_ERR_fb_variables_after_method, 1490),
     (sym_ERR_var_access_not_allowed, 3160), (sym_ERR_var_config_not_allowed, 3160),
     (sym_ERR_var_global_not_allowed, 3160), (sym_ERR_method_decl_in_body, 3150),
     (sym_extern_pragma, 7490), (sym_wasm_pragma, 3150), (sym_warn_pragma, 7490),
     (sym_allow_pragma, 3140), (sym_test_pragma, 7490), (sym_once_pragma, 7490),
     (sym_must_call_pragma, 7490), (sym_export_pragma, 7490), (sym_pou_pragma, 7194),
     (sym_direct_variable, 7675), (sym_deref_expression, 2373), (sym_variable, 7599),
     (sym_var_access, 2373), (sym_in_out_decls, 3160), (sym_var_decls, 3160),
     (sym_retain_var_decls, 3160), (sym_temp_var_decls, 3160), (sym_external_var_decls, 3160),
     (sym_global_var_decls, 2947), (sym_loc_partly_var_decl, 3160), (sym__fb_variables, 2343),
     (sym_fb_input_decls, 3160), (sym_fb_output_decls, 3160), (sym_no_retain_var_decls, 3160),
     (sym_fb_body, 8284), (sym_method_decl, 2549), (sym_prog_access_decls, 3043), (sym_SFC, 7970),
     (sym_SFC_network, 7612), (sym_initial_step, 7439), (sym_config_init, 3047),
     (sym_variable_access, 7530), (sym_func_call, 2961), (sym_stmt_list, 7970), (sym__stmt, 2024),
     (sym_assign, 3150), (sym_if_stmt, 3150), (sym_case_stmt, 3150), (sym_for_stmt, 3150),
     (sym_while_stmt, 3150), (sym_repeat_stmt, 3150), (sym_raise_stmt, 3150), (sym_try_stmt, 3150),
     (sym_ERR_clause_outside_try, 3150), (sym_begin_path_expression, 2943), (sym_invocation, 2934),
     (sym_any_invocation, 2935), (sym_this_invocation, 2641), (sym_super_invocation, 2641),
     (sym_super_body_invocation, 2935), (sym_path_expression, 2627), (sym_field_expression, 2373),
     (sym_index_expression, 2373), (sym_ladder_diagram, 7970), (sym_fb_diagram, 7970),
     (aux_sym_ERR_fb_variables_after_method_repeat1, 2343), (aux_sym_func_decl_repeat1, 7194),
     (aux_sym_fb_decl_repeat3, 2549), (aux_sym_SFC_repeat1, 7612),
     (aux_sym_stmt_list_repeat1, 2024), (aux_sym_ladder_diagram_repeat1, 8009),
     (aux_sym_fb_diagram_repeat1, 8013), (sym_identifier, 298),
     (aux_sym_ERR_unexpected_this_in_path_token1, 304),
     (aux_sym_ERR_unexpected_super_in_path_token1, 306), (sym_line_comment, 3),
     (anon_sym_LBRACE, 308), (aux_sym_test_pragma_token1, 9), (aux_sym_once_pragma_token1, 11),
     (aux_sym_must_call_pragma_token1, 13), (aux_sym_export_pragma_token1, 15),
     (anon_sym_SEMI, 310), (anon_sym_PERCENT, 312), (aux_sym_input_decls_token1, 314),
     (aux_sym_output_decls_token1, 316), (aux_sym_in_out_decls_token1, 318),
     (aux_sym_var_decls_token1, 320), (aux_sym_temp_var_decls_token1, 322),
     (aux_sym_external_var_decls_token1, 324), (aux_sym_global_var_decls_token1, 326),
     (aux_sym_fb_decl_token4, 1154), (aux_sym_method_decl_token1, 330),
     (aux_sym_prog_access_decls_token1, 332), (aux_sym_initial_step_token1, 334),
     (aux_sym_config_init_token1, 336), (aux_sym__stmt_token1, 340), (aux_sym__stmt_token2, 340),
     (aux_sym__stmt_token3, 340), (aux_sym_if_stmt_token1, 342), (aux_sym_case_stmt_token1, 344),
     (aux_sym_for_stmt_token1, 346), (aux_sym_while_stmt_token1, 348),
     (aux_sym_repeat_stmt_token1, 350), (aux_sym_raise_stmt_token1, 352),
     (aux_sym_try_stmt_token1, 354), (aux_sym_try_stmt_token2, 356),
     (aux_sym_catch_clause_token1, 356), (aux_sym_finally_clause_token1, 356), (sym_ld_rung, 358),
     (sym_fbd_network, 360), (sym_c_style_comment, 3), (sym_pascal_style_comment, 3),
     (sym_pragma, 3)]"

lemma ts_parse_row_412_scan: "row_scan tokens_63_2 0 ts_parse_row_412 = Some (Suc (Suc (Suc (Suc 0))))"
  unfolding ts_parse_row_412_def by simp

text \<open>Lines 101878 to 101990.\<close>

definition ts_parse_row_413 :: parse_row where
  "ts_parse_row_413 =
    [(sym_ERR_assign_func_call, 7530), (sym_ERR_unexpected_this_in_path, 2372),
     (sym_ERR_unexpected_super_in_path, 2372), (sym_ERR_fb_variables_after_method, 1297),
     (sym_ERR_var_access_not_allowed, 3160), (sym_ERR_var_config_not_allowed, 3160),
     (sym_ERR_var_global_not_allowed, 3160), (sym_ERR_method_decl_in_body, 3150),
     (sym_extern_pragma, 7490), (sym_wasm_pragma, 3150), (sym_warn_pragma, 7490),
     (sym_allow_pragma, 3140), (sym_test_pragma, 7490), (sym_once_pragma, 7490),
     (sym_must_call_pragma, 7490), (sym_export_pragma, 7490), (sym_pou_pragma, 7194),
     (sym_direct_variable, 7675), (sym_deref_expression, 2373), (sym_variable, 7599),
     (sym_var_access, 2373), (sym_in_out_decls, 3160), (sym_var_decls, 3160),
     (sym_retain_var_decls, 3160), (sym_temp_var_decls, 3160), (sym_external_var_decls, 3160),
     (sym_global_var_decls, 2947), (sym_loc_partly_var_decl, 3160), (sym__fb_variables, 2343),
     (sym_fb_input_decls, 3160), (sym_fb_output_decls, 3160), (sym_no_retain_var_decls, 3160),
     (sym_fb_body, 9713), (sym_method_decl, 2549), (sym_prog_access_decls, 3043), (sym_SFC, 7970),
     (sym_SFC_network, 7612), (sym_initial_step, 7439), (sym_config_init, 3047),
     (sym_variable_access, 7530), (sym_func_call, 2961), (sym_stmt_list, 7970), (sym__stmt, 2024),
     (sym_assign, 3150), (sym_if_stmt, 3150), (sym_case_stmt, 3150), (sym_for_stmt, 3150),
     (sym_while_stmt, 3150), (sym_repeat_stmt, 3150), (sym_raise_stmt, 3150), (sym_try_stmt, 3150),
     (sym_ERR_clause_outside_try, 3150), (sym_begin_path_expression, 2943), (sym_invocation, 2934),
     (sym_any_invocation, 2935), (sym_this_invocation, 2641), (sym_super_invocation, 2641),
     (sym_super_body_invocation, 2935), (sym_path_expression, 2627), (sym_field_expression, 2373),
     (sym_index_expression, 2373), (sym_ladder_diagram, 7970), (sym_fb_diagram, 7970),
     (aux_sym_ERR_fb_variables_after_method_repeat1, 2343), (aux_sym_func_decl_repeat1, 7194),
     (aux_sym_fb_decl_repeat3, 2549), (aux_sym_SFC_repeat1, 7612),
     (aux_sym_stmt_list_repeat1, 2024), (aux_sym_ladder_diagram_repeat1, 8009),
     (aux_sym_fb_diagram_repeat1, 8013), (sym_identifier, 298),
     (aux_sym_ERR_unexpected_this_in_path_token1, 304),
     (aux_sym_ERR_unexpected_super_in_path_token1, 306), (sym_line_comment, 3),
     (anon_sym_LBRACE, 308), (aux_sym_test_pragma_token1, 9), (aux_sym_once_pragma_token1, 11),
     (aux_sym_must_call_pragma_token1, 13), (aux_sym_export_pragma_token1, 15),
     (anon_sym_SEMI, 310), (anon_sym_PERCENT, 312), (aux_sym_input_decls_token1, 314),
     (aux_sym_output_decls_token1, 316), (aux_sym_in_out_decls_token1, 318),
     (aux_sym_var_decls_token1, 320), (aux_sym_temp_var_decls_token1, 322),
     (aux_sym_external_var_decls_token1, 324), (aux_sym_global_var_decls_token1, 326),
     (aux_sym_fb_decl_token4, 1156), (aux_sym_method_decl_token1, 330),
     (aux_sym_prog_access_decls_token1, 332), (aux_sym_initial_step_token1, 334),
     (aux_sym_config_init_token1, 336), (aux_sym__stmt_token1, 340), (aux_sym__stmt_token2, 340),
     (aux_sym__stmt_token3, 340), (aux_sym_if_stmt_token1, 342), (aux_sym_case_stmt_token1, 344),
     (aux_sym_for_stmt_token1, 346), (aux_sym_while_stmt_token1, 348),
     (aux_sym_repeat_stmt_token1, 350), (aux_sym_raise_stmt_token1, 352),
     (aux_sym_try_stmt_token1, 354), (aux_sym_try_stmt_token2, 356),
     (aux_sym_catch_clause_token1, 356), (aux_sym_finally_clause_token1, 356), (sym_ld_rung, 358),
     (sym_fbd_network, 360), (sym_c_style_comment, 3), (sym_pascal_style_comment, 3),
     (sym_pragma, 3)]"

lemma ts_parse_row_413_scan: "row_scan tokens_63_2 0 ts_parse_row_413 = Some (Suc (Suc (Suc (Suc 0))))"
  unfolding ts_parse_row_413_def by simp

text \<open>Lines 101991 to 102103.\<close>

definition ts_parse_row_414 :: parse_row where
  "ts_parse_row_414 =
    [(sym_ERR_assign_func_call, 7530), (sym_ERR_unexpected_this_in_path, 2372),
     (sym_ERR_unexpected_super_in_path, 2372), (sym_ERR_fb_variables_after_method, 1492),
     (sym_ERR_var_access_not_allowed, 3160), (sym_ERR_var_config_not_allowed, 3160),
     (sym_ERR_var_global_not_allowed, 3160), (sym_ERR_method_decl_in_body, 3150),
     (sym_extern_pragma, 7490), (sym_wasm_pragma, 3150), (sym_warn_pragma, 7490),
     (sym_allow_pragma, 3140), (sym_test_pragma, 7490), (sym_once_pragma, 7490),
     (sym_must_call_pragma, 7490), (sym_export_pragma, 7490), (sym_pou_pragma, 7194),
     (sym_direct_variable, 7675), (sym_deref_expression, 2373), (sym_variable, 7599),
     (sym_var_access, 2373), (sym_in_out_decls, 3160), (sym_var_decls, 3160),
     (sym_retain_var_decls, 3160), (sym_temp_var_decls, 3160), (sym_external_var_decls, 3160),
     (sym_global_var_decls, 2947), (sym_loc_partly_var_decl, 3160), (sym__fb_variables, 2343),
     (sym_fb_input_decls, 3160), (sym_fb_output_decls, 3160), (sym_no_retain_var_decls, 3160),
     (sym_fb_body, 8317), (sym_method_decl, 2549), (sym_prog_access_decls, 3043), (sym_SFC, 7970),
     (sym_SFC_network, 7612), (sym_initial_step, 7439), (sym_config_init, 3047),
     (sym_variable_access, 7530), (sym_func_call, 2961), (sym_stmt_list, 7970), (sym__stmt, 2024),
     (sym_assign, 3150), (sym_if_stmt, 3150), (sym_case_stmt, 3150), (sym_for_stmt, 3150),
     (sym_while_stmt, 3150), (sym_repeat_stmt, 3150), (sym_raise_stmt, 3150), (sym_try_stmt, 3150),
     (sym_ERR_clause_outside_try, 3150), (sym_begin_path_expression, 2943), (sym_invocation, 2934),
     (sym_any_invocation, 2935), (sym_this_invocation, 2641), (sym_super_invocation, 2641),
     (sym_super_body_invocation, 2935), (sym_path_expression, 2627), (sym_field_expression, 2373),
     (sym_index_expression, 2373), (sym_ladder_diagram, 7970), (sym_fb_diagram, 7970),
     (aux_sym_ERR_fb_variables_after_method_repeat1, 2343), (aux_sym_func_decl_repeat1, 7194),
     (aux_sym_fb_decl_repeat3, 2549), (aux_sym_SFC_repeat1, 7612),
     (aux_sym_stmt_list_repeat1, 2024), (aux_sym_ladder_diagram_repeat1, 8009),
     (aux_sym_fb_diagram_repeat1, 8013), (sym_identifier, 298),
     (aux_sym_ERR_unexpected_this_in_path_token1, 304),
     (aux_sym_ERR_unexpected_super_in_path_token1, 306), (sym_line_comment, 3),
     (anon_sym_LBRACE, 308), (aux_sym_test_pragma_token1, 9), (aux_sym_once_pragma_token1, 11),
     (aux_sym_must_call_pragma_token1, 13), (aux_sym_export_pragma_token1, 15),
     (anon_sym_SEMI, 310), (anon_sym_PERCENT, 312), (aux_sym_input_decls_token1, 314),
     (aux_sym_output_decls_token1, 316), (aux_sym_in_out_decls_token1, 318),
     (aux_sym_var_decls_token1, 320), (aux_sym_temp_var_decls_token1, 322),
     (aux_sym_external_var_decls_token1, 324), (aux_sym_global_var_decls_token1, 326),
     (aux_sym_fb_decl_token4, 1158), (aux_sym_method_decl_token1, 330),
     (aux_sym_prog_access_decls_token1, 332), (aux_sym_initial_step_token1, 334),
     (aux_sym_config_init_token1, 336), (aux_sym__stmt_token1, 340), (aux_sym__stmt_token2, 340),
     (aux_sym__stmt_token3, 340), (aux_sym_if_stmt_token1, 342), (aux_sym_case_stmt_token1, 344),
     (aux_sym_for_stmt_token1, 346), (aux_sym_while_stmt_token1, 348),
     (aux_sym_repeat_stmt_token1, 350), (aux_sym_raise_stmt_token1, 352),
     (aux_sym_try_stmt_token1, 354), (aux_sym_try_stmt_token2, 356),
     (aux_sym_catch_clause_token1, 356), (aux_sym_finally_clause_token1, 356), (sym_ld_rung, 358),
     (sym_fbd_network, 360), (sym_c_style_comment, 3), (sym_pascal_style_comment, 3),
     (sym_pragma, 3)]"

lemma ts_parse_row_414_scan: "row_scan tokens_63_2 0 ts_parse_row_414 = Some (Suc (Suc (Suc (Suc 0))))"
  unfolding ts_parse_row_414_def by simp

text \<open>Lines 102104 to 102216.\<close>

definition ts_parse_row_415 :: parse_row where
  "ts_parse_row_415 =
    [(sym_ERR_assign_func_call, 7530), (sym_ERR_unexpected_this_in_path, 2372),
     (sym_ERR_unexpected_super_in_path, 2372), (sym_ERR_fb_variables_after_method, 1300),
     (sym_ERR_var_access_not_allowed, 3160), (sym_ERR_var_config_not_allowed, 3160),
     (sym_ERR_var_global_not_allowed, 3160), (sym_ERR_method_decl_in_body, 3150),
     (sym_extern_pragma, 7490), (sym_wasm_pragma, 3150), (sym_warn_pragma, 7490),
     (sym_allow_pragma, 3140), (sym_test_pragma, 7490), (sym_once_pragma, 7490),
     (sym_must_call_pragma, 7490), (sym_export_pragma, 7490), (sym_pou_pragma, 7194),
     (sym_direct_variable, 7675), (sym_deref_expression, 2373), (sym_variable, 7599),
     (sym_var_access, 2373), (sym_in_out_decls, 3160), (sym_var_decls, 3160),
     (sym_retain_var_decls, 3160), (sym_temp_var_decls, 3160), (sym_external_var_decls, 3160),
     (sym_global_var_decls, 2947), (sym_loc_partly_var_decl, 3160), (sym__fb_variables, 2343),
     (sym_fb_input_decls, 3160), (sym_fb_output_decls, 3160), (sym_no_retain_var_decls, 3160),
     (sym_fb_body, 9738), (sym_method_decl, 2549), (sym_prog_access_decls, 3043), (sym_SFC, 7970),
     (sym_SFC_network, 7612), (sym_initial_step, 7439), (sym_config_init, 3047),
     (sym_variable_access, 7530), (sym_func_call, 2961), (sym_stmt_list, 7970), (sym__stmt, 2024),
     (sym_assign, 3150), (sym_if_stmt, 3150), (sym_case_stmt, 3150), (sym_for_stmt, 3150),
     (sym_while_stmt, 3150), (sym_repeat_stmt, 3150), (sym_raise_stmt, 3150), (sym_try_stmt, 3150),
     (sym_ERR_clause_outside_try, 3150), (sym_begin_path_expression, 2943), (sym_invocation, 2934),
     (sym_any_invocation, 2935), (sym_this_invocation, 2641), (sym_super_invocation, 2641),
     (sym_super_body_invocation, 2935), (sym_path_expression, 2627), (sym_field_expression, 2373),
     (sym_index_expression, 2373), (sym_ladder_diagram, 7970), (sym_fb_diagram, 7970),
     (aux_sym_ERR_fb_variables_after_method_repeat1, 2343), (aux_sym_func_decl_repeat1, 7194),
     (aux_sym_fb_decl_repeat3, 2549), (aux_sym_SFC_repeat1, 7612),
     (aux_sym_stmt_list_repeat1, 2024), (aux_sym_ladder_diagram_repeat1, 8009),
     (aux_sym_fb_diagram_repeat1, 8013), (sym_identifier, 298),
     (aux_sym_ERR_unexpected_this_in_path_token1, 304),
     (aux_sym_ERR_unexpected_super_in_path_token1, 306), (sym_line_comment, 3),
     (anon_sym_LBRACE, 308), (aux_sym_test_pragma_token1, 9), (aux_sym_once_pragma_token1, 11),
     (aux_sym_must_call_pragma_token1, 13), (aux_sym_export_pragma_token1, 15),
     (anon_sym_SEMI, 310), (anon_sym_PERCENT, 312), (aux_sym_input_decls_token1, 314),
     (aux_sym_output_decls_token1, 316), (aux_sym_in_out_decls_token1, 318),
     (aux_sym_var_decls_token1, 320), (aux_sym_temp_var_decls_token1, 322),
     (aux_sym_external_var_decls_token1, 324), (aux_sym_global_var_decls_token1, 326),
     (aux_sym_fb_decl_token4, 1160), (aux_sym_method_decl_token1, 330),
     (aux_sym_prog_access_decls_token1, 332), (aux_sym_initial_step_token1, 334),
     (aux_sym_config_init_token1, 336), (aux_sym__stmt_token1, 340), (aux_sym__stmt_token2, 340),
     (aux_sym__stmt_token3, 340), (aux_sym_if_stmt_token1, 342), (aux_sym_case_stmt_token1, 344),
     (aux_sym_for_stmt_token1, 346), (aux_sym_while_stmt_token1, 348),
     (aux_sym_repeat_stmt_token1, 350), (aux_sym_raise_stmt_token1, 352),
     (aux_sym_try_stmt_token1, 354), (aux_sym_try_stmt_token2, 356),
     (aux_sym_catch_clause_token1, 356), (aux_sym_finally_clause_token1, 356), (sym_ld_rung, 358),
     (sym_fbd_network, 360), (sym_c_style_comment, 3), (sym_pascal_style_comment, 3),
     (sym_pragma, 3)]"

lemma ts_parse_row_415_scan: "row_scan tokens_63_2 0 ts_parse_row_415 = Some (Suc (Suc (Suc (Suc 0))))"
  unfolding ts_parse_row_415_def by simp

text \<open>Lines 102217 to 102329.\<close>

definition ts_parse_row_416 :: parse_row where
  "ts_parse_row_416 =
    [(sym_ERR_assign_func_call, 7530), (sym_ERR_unexpected_this_in_path, 2372),
     (sym_ERR_unexpected_super_in_path, 2372), (sym_ERR_fb_variables_after_method, 1301),
     (sym_ERR_var_access_not_allowed, 3160), (sym_ERR_var_config_not_allowed, 3160),
     (sym_ERR_var_global_not_allowed, 3160), (sym_ERR_method_decl_in_body, 3150),
     (sym_extern_pragma, 7490), (sym_wasm_pragma, 3150), (sym_warn_pragma, 7490),
     (sym_allow_pragma, 3140), (sym_test_pragma, 7490), (sym_once_pragma, 7490),
     (sym_must_call_pragma, 7490), (sym_export_pragma, 7490), (sym_pou_pragma, 7194),
     (sym_direct_variable, 7675), (sym_deref_expression, 2373), (sym_variable, 7599),
     (sym_var_access, 2373), (sym_in_out_decls, 3160), (sym_var_decls, 3160),
     (sym_retain_var_decls, 3160), (sym_temp_var_decls, 3160), (sym_external_var_decls, 3160),
     (sym_global_var_decls, 2947), (sym_loc_partly_var_decl, 3160), (sym__fb_variables, 2347),
     (sym_fb_input_decls, 3160), (sym_fb_output_decls, 3160), (sym_no_retain_var_decls, 3160),
     (sym_fb_body, 9747), (sym_method_decl, 554), (sym_prog_access_decls, 3043), (sym_SFC, 7970),
     (sym_SFC_network, 7612), (sym_initial_step, 7439), (sym_config_init, 3047),
     (sym_variable_access, 7530), (sym_func_call, 2961), (sym_stmt_list, 7970), (sym__stmt, 2024),
     (sym_assign, 3150), (sym_if_stmt, 3150), (sym_case_stmt, 3150), (sym_for_stmt, 3150),
     (sym_while_stmt, 3150), (sym_repeat_stmt, 3150), (sym_raise_stmt, 3150), (sym_try_stmt, 3150),
     (sym_ERR_clause_outside_try, 3150), (sym_begin_path_expression, 2943), (sym_invocation, 2934),
     (sym_any_invocation, 2935), (sym_this_invocation, 2641), (sym_super_invocation, 2641),
     (sym_super_body_invocation, 2935), (sym_path_expression, 2627), (sym_field_expression, 2373),
     (sym_index_expression, 2373), (sym_ladder_diagram, 7970), (sym_fb_diagram, 7970),
     (aux_sym_ERR_fb_variables_after_method_repeat1, 2347), (aux_sym_func_decl_repeat1, 7194),
     (aux_sym_fb_decl_repeat3, 554), (aux_sym_SFC_repeat1, 7612), (aux_sym_stmt_list_repeat1, 2024),
     (aux_sym_ladder_diagram_repeat1, 8009), (aux_sym_fb_diagram_repeat1, 8013),
     (sym_identifier, 298), (aux_sym_ERR_unexpected_this_in_path_token1, 304),
     (aux_sym_ERR_unexpected_super_in_path_token1, 306), (sym_line_comment, 3),
     (anon_sym_LBRACE, 308), (aux_sym_test_pragma_token1, 9), (aux_sym_once_pragma_token1, 11),
     (aux_sym_must_call_pragma_token1, 13), (aux_sym_export_pragma_token1, 15),
     (anon_sym_SEMI, 310), (anon_sym_PERCENT, 312), (aux_sym_input_decls_token1, 314),
     (aux_sym_output_decls_token1, 316), (aux_sym_in_out_decls_token1, 318),
     (aux_sym_var_decls_token1, 320), (aux_sym_temp_var_decls_token1, 322),
     (aux_sym_external_var_decls_token1, 324), (aux_sym_global_var_decls_token1, 326),
     (aux_sym_fb_decl_token4, 1162), (aux_sym_method_decl_token1, 330),
     (aux_sym_prog_access_decls_token1, 332), (aux_sym_initial_step_token1, 334),
     (aux_sym_config_init_token1, 336), (aux_sym__stmt_token1, 340), (aux_sym__stmt_token2, 340),
     (aux_sym__stmt_token3, 340), (aux_sym_if_stmt_token1, 342), (aux_sym_case_stmt_token1, 344),
     (aux_sym_for_stmt_token1, 346), (aux_sym_while_stmt_token1, 348),
     (aux_sym_repeat_stmt_token1, 350), (aux_sym_raise_stmt_token1, 352),
     (aux_sym_try_stmt_token1, 354), (aux_sym_try_stmt_token2, 356),
     (aux_sym_catch_clause_token1, 356), (aux_sym_finally_clause_token1, 356), (sym_ld_rung, 358),
     (sym_fbd_network, 360), (sym_c_style_comment, 3), (sym_pascal_style_comment, 3),
     (sym_pragma, 3)]"

lemma ts_parse_row_416_scan: "row_scan tokens_63_2 0 ts_parse_row_416 = Some (Suc (Suc (Suc (Suc 0))))"
  unfolding ts_parse_row_416_def by simp

text \<open>Lines 102330 to 102442.\<close>

definition ts_parse_row_417 :: parse_row where
  "ts_parse_row_417 =
    [(sym_ERR_assign_func_call, 7530), (sym_ERR_unexpected_this_in_path, 2372),
     (sym_ERR_unexpected_super_in_path, 2372), (sym_ERR_fb_variables_after_method, 1302),
     (sym_ERR_var_access_not_allowed, 3160), (sym_ERR_var_config_not_allowed, 3160),
     (sym_ERR_var_global_not_allowed, 3160), (sym_ERR_method_decl_in_body, 3150),
     (sym_extern_pragma, 7490), (sym_wasm_pragma, 3150), (sym_warn_pragma, 7490),
     (sym_allow_pragma, 3140), (sym_test_pragma, 7490), (sym_once_pragma, 7490),
     (sym_must_call_pragma, 7490), (sym_export_pragma, 7490), (sym_pou_pragma, 7194),
     (sym_direct_variable, 7675), (sym_deref_expression, 2373), (sym_variable, 7599),
     (sym_var_access, 2373), (sym_in_out_decls, 3160), (sym_var_decls, 3160),
     (sym_retain_var_decls, 3160), (sym_temp_var_decls, 3160), (sym_external_var_decls, 3160),
     (sym_global_var_decls, 2947), (sym_loc_partly_var_decl, 3160), (sym__fb_variables, 2343),
     (sym_fb_input_decls, 3160), (sym_fb_output_decls, 3160), (sym_no_retain_var_decls, 3160),
     (sym_fb_body, 9753), (sym_method_decl, 2549), (sym_prog_access_decls, 3043), (sym_SFC, 7970),
     (sym_SFC_network, 7612), (sym_initial_step, 7439), (sym_config_init, 3047),
     (sym_variable_access, 7530), (sym_func_call, 2961), (sym_stmt_list, 7970), (sym__stmt, 2024),
     (sym_assign, 3150), (sym_if_stmt, 3150), (sym_case_stmt, 3150), (sym_for_stmt, 3150),
     (sym_while_stmt, 3150), (sym_repeat_stmt, 3150), (sym_raise_stmt, 3150), (sym_try_stmt, 3150),
     (sym_ERR_clause_outside_try, 3150), (sym_begin_path_expression, 2943), (sym_invocation, 2934),
     (sym_any_invocation, 2935), (sym_this_invocation, 2641), (sym_super_invocation, 2641),
     (sym_super_body_invocation, 2935), (sym_path_expression, 2627), (sym_field_expression, 2373),
     (sym_index_expression, 2373), (sym_ladder_diagram, 7970), (sym_fb_diagram, 7970),
     (aux_sym_ERR_fb_variables_after_method_repeat1, 2343), (aux_sym_func_decl_repeat1, 7194),
     (aux_sym_fb_decl_repeat3, 2549), (aux_sym_SFC_repeat1, 7612),
     (aux_sym_stmt_list_repeat1, 2024), (aux_sym_ladder_diagram_repeat1, 8009),
     (aux_sym_fb_diagram_repeat1, 8013), (sym_identifier, 298),
     (aux_sym_ERR_unexpected_this_in_path_token1, 304),
     (aux_sym_ERR_unexpected_super_in_path_token1, 306), (sym_line_comment, 3),
     (anon_sym_LBRACE, 308), (aux_sym_test_pragma_token1, 9), (aux_sym_once_pragma_token1, 11),
     (aux_sym_must_call_pragma_token1, 13), (aux_sym_export_pragma_token1, 15),
     (anon_sym_SEMI, 310), (anon_sym_PERCENT, 312), (aux_sym_input_decls_token1, 314),
     (aux_sym_output_decls_token1, 316), (aux_sym_in_out_decls_token1, 318),
     (aux_sym_var_decls_token1, 320), (aux_sym_temp_var_decls_token1, 322),
     (aux_sym_external_var_decls_token1, 324), (aux_sym_global_var_decls_token1, 326),
     (aux_sym_fb_decl_token4, 1164), (aux_sym_method_decl_token1, 330),
     (aux_sym_prog_access_decls_token1, 332), (aux_sym_initial_step_token1, 334),
     (aux_sym_config_init_token1, 336), (aux_sym__stmt_token1, 340), (aux_sym__stmt_token2, 340),
     (aux_sym__stmt_token3, 340), (aux_sym_if_stmt_token1, 342), (aux_sym_case_stmt_token1, 344),
     (aux_sym_for_stmt_token1, 346), (aux_sym_while_stmt_token1, 348),
     (aux_sym_repeat_stmt_token1, 350), (aux_sym_raise_stmt_token1, 352),
     (aux_sym_try_stmt_token1, 354), (aux_sym_try_stmt_token2, 356),
     (aux_sym_catch_clause_token1, 356), (aux_sym_finally_clause_token1, 356), (sym_ld_rung, 358),
     (sym_fbd_network, 360), (sym_c_style_comment, 3), (sym_pascal_style_comment, 3),
     (sym_pragma, 3)]"

lemma ts_parse_row_417_scan: "row_scan tokens_63_2 0 ts_parse_row_417 = Some (Suc (Suc (Suc (Suc 0))))"
  unfolding ts_parse_row_417_def by simp

text \<open>Lines 102443 to 102555.\<close>

definition ts_parse_row_418 :: parse_row where
  "ts_parse_row_418 =
    [(sym_ERR_assign_func_call, 7530), (sym_ERR_unexpected_this_in_path, 2372),
     (sym_ERR_unexpected_super_in_path, 2372), (sym_ERR_fb_variables_after_method, 1303),
     (sym_ERR_var_access_not_allowed, 3160), (sym_ERR_var_config_not_allowed, 3160),
     (sym_ERR_var_global_not_allowed, 3160), (sym_ERR_method_decl_in_body, 3150),
     (sym_extern_pragma, 7490), (sym_wasm_pragma, 3150), (sym_warn_pragma, 7490),
     (sym_allow_pragma, 3140), (sym_test_pragma, 7490), (sym_once_pragma, 7490),
     (sym_must_call_pragma, 7490), (sym_export_pragma, 7490), (sym_pou_pragma, 7194),
     (sym_direct_variable, 7675), (sym_deref_expression, 2373), (sym_variable, 7599),
     (sym_var_access, 2373), (sym_in_out_decls, 3160), (sym_var_decls, 3160),
     (sym_retain_var_decls, 3160), (sym_temp_var_decls, 3160), (sym_external_var_decls, 3160),
     (sym_global_var_decls, 2947), (sym_loc_partly_var_decl, 3160), (sym__fb_variables, 2347),
     (sym_fb_input_decls, 3160), (sym_fb_output_decls, 3160), (sym_no_retain_var_decls, 3160),
     (sym_fb_body, 9765), (sym_method_decl, 556), (sym_prog_access_decls, 3043), (sym_SFC, 7970),
     (sym_SFC_network, 7612), (sym_initial_step, 7439), (sym_config_init, 3047),
     (sym_variable_access, 7530), (sym_func_call, 2961), (sym_stmt_list, 7970), (sym__stmt, 2024),
     (sym_assign, 3150), (sym_if_stmt, 3150), (sym_case_stmt, 3150), (sym_for_stmt, 3150),
     (sym_while_stmt, 3150), (sym_repeat_stmt, 3150), (sym_raise_stmt, 3150), (sym_try_stmt, 3150),
     (sym_ERR_clause_outside_try, 3150), (sym_begin_path_expression, 2943), (sym_invocation, 2934),
     (sym_any_invocation, 2935), (sym_this_invocation, 2641), (sym_super_invocation, 2641),
     (sym_super_body_invocation, 2935), (sym_path_expression, 2627), (sym_field_expression, 2373),
     (sym_index_expression, 2373), (sym_ladder_diagram, 7970), (sym_fb_diagram, 7970),
     (aux_sym_ERR_fb_variables_after_method_repeat1, 2347), (aux_sym_func_decl_repeat1, 7194),
     (aux_sym_fb_decl_repeat3, 556), (aux_sym_SFC_repeat1, 7612), (aux_sym_stmt_list_repeat1, 2024),
     (aux_sym_ladder_diagram_repeat1, 8009), (aux_sym_fb_diagram_repeat1, 8013),
     (sym_identifier, 298), (aux_sym_ERR_unexpected_this_in_path_token1, 304),
     (aux_sym_ERR_unexpected_super_in_path_token1, 306), (sym_line_comment, 3),
     (anon_sym_LBRACE, 308), (aux_sym_test_pragma_token1, 9), (aux_sym_once_pragma_token1, 11),
     (aux_sym_must_call_pragma_token1, 13), (aux_sym_export_pragma_token1, 15),
     (anon_sym_SEMI, 310), (anon_sym_PERCENT, 312), (aux_sym_input_decls_token1, 314),
     (aux_sym_output_decls_token1, 316), (aux_sym_in_out_decls_token1, 318),
     (aux_sym_var_decls_token1, 320), (aux_sym_temp_var_decls_token1, 322),
     (aux_sym_external_var_decls_token1, 324), (aux_sym_global_var_decls_token1, 326),
     (aux_sym_fb_decl_token4, 1166), (aux_sym_method_decl_token1, 330),
     (aux_sym_prog_access_decls_token1, 332), (aux_sym_initial_step_token1, 334),
     (aux_sym_config_init_token1, 336), (aux_sym__stmt_token1, 340), (aux_sym__stmt_token2, 340),
     (aux_sym__stmt_token3, 340), (aux_sym_if_stmt_token1, 342), (aux_sym_case_stmt_token1, 344),
     (aux_sym_for_stmt_token1, 346), (aux_sym_while_stmt_token1, 348),
     (aux_sym_repeat_stmt_token1, 350), (aux_sym_raise_stmt_token1, 352),
     (aux_sym_try_stmt_token1, 354), (aux_sym_try_stmt_token2, 356),
     (aux_sym_catch_clause_token1, 356), (aux_sym_finally_clause_token1, 356), (sym_ld_rung, 358),
     (sym_fbd_network, 360), (sym_c_style_comment, 3), (sym_pascal_style_comment, 3),
     (sym_pragma, 3)]"

lemma ts_parse_row_418_scan: "row_scan tokens_63_2 0 ts_parse_row_418 = Some (Suc (Suc (Suc (Suc 0))))"
  unfolding ts_parse_row_418_def by simp

text \<open>Lines 102556 to 102668.\<close>

definition ts_parse_row_419 :: parse_row where
  "ts_parse_row_419 =
    [(sym_ERR_assign_func_call, 7530), (sym_ERR_unexpected_this_in_path, 2372),
     (sym_ERR_unexpected_super_in_path, 2372), (sym_ERR_fb_variables_after_method, 1626),
     (sym_ERR_var_access_not_allowed, 3160), (sym_ERR_var_config_not_allowed, 3160),
     (sym_ERR_var_global_not_allowed, 3160), (sym_ERR_method_decl_in_body, 3150),
     (sym_extern_pragma, 7490), (sym_wasm_pragma, 3150), (sym_warn_pragma, 7490),
     (sym_allow_pragma, 3140), (sym_test_pragma, 7490), (sym_once_pragma, 7490),
     (sym_must_call_pragma, 7490), (sym_export_pragma, 7490), (sym_pou_pragma, 7194),
     (sym_direct_variable, 7675), (sym_deref_expression, 2373), (sym_variable, 7599),
     (sym_var_access, 2373), (sym_in_out_decls, 3160), (sym_var_decls, 3160),
     (sym_retain_var_decls, 3160), (sym_temp_var_decls, 3160), (sym_external_var_decls, 3160),
     (sym_global_var_decls, 2947), (sym_loc_partly_var_decl, 3160), (sym__fb_variables, 2343),
     (sym_fb_input_decls, 3160), (sym_fb_output_decls, 3160), (sym_no_retain_var_decls, 3160),
     (sym_fb_body, 10445), (sym_method_decl, 2549), (sym_prog_access_decls, 3043), (sym_SFC, 7970),
     (sym_SFC_network, 7612), (sym_initial_step, 7439), (sym_config_init, 3047),
     (sym_variable_access, 7530), (sym_func_call, 2961), (sym_stmt_list, 7970), (sym__stmt, 2024),
     (sym_assign, 3150), (sym_if_stmt, 3150), (sym_case_stmt, 3150), (sym_for_stmt, 3150),
     (sym_while_stmt, 3150), (sym_repeat_stmt, 3150), (sym_raise_stmt, 3150), (sym_try_stmt, 3150),
     (sym_ERR_clause_outside_try, 3150), (sym_begin_path_expression, 2943), (sym_invocation, 2934),
     (sym_any_invocation, 2935), (sym_this_invocation, 2641), (sym_super_invocation, 2641),
     (sym_super_body_invocation, 2935), (sym_path_expression, 2627), (sym_field_expression, 2373),
     (sym_index_expression, 2373), (sym_ladder_diagram, 7970), (sym_fb_diagram, 7970),
     (aux_sym_ERR_fb_variables_after_method_repeat1, 2343), (aux_sym_func_decl_repeat1, 7194),
     (aux_sym_fb_decl_repeat3, 2549), (aux_sym_SFC_repeat1, 7612),
     (aux_sym_stmt_list_repeat1, 2024), (aux_sym_ladder_diagram_repeat1, 8009),
     (aux_sym_fb_diagram_repeat1, 8013), (sym_identifier, 298),
     (aux_sym_ERR_unexpected_this_in_path_token1, 304),
     (aux_sym_ERR_unexpected_super_in_path_token1, 306), (sym_line_comment, 3),
     (anon_sym_LBRACE, 308), (aux_sym_test_pragma_token1, 9), (aux_sym_once_pragma_token1, 11),
     (aux_sym_must_call_pragma_token1, 13), (aux_sym_export_pragma_token1, 15),
     (anon_sym_SEMI, 310), (anon_sym_PERCENT, 312), (aux_sym_input_decls_token1, 314),
     (aux_sym_output_decls_token1, 316), (aux_sym_in_out_decls_token1, 318),
     (aux_sym_var_decls_token1, 320), (aux_sym_temp_var_decls_token1, 322),
     (aux_sym_external_var_decls_token1, 324), (aux_sym_global_var_decls_token1, 326),
     (aux_sym_fb_decl_token4, 1168), (aux_sym_method_decl_token1, 330),
     (aux_sym_prog_access_decls_token1, 332), (aux_sym_initial_step_token1, 334),
     (aux_sym_config_init_token1, 336), (aux_sym__stmt_token1, 340), (aux_sym__stmt_token2, 340),
     (aux_sym__stmt_token3, 340), (aux_sym_if_stmt_token1, 342), (aux_sym_case_stmt_token1, 344),
     (aux_sym_for_stmt_token1, 346), (aux_sym_while_stmt_token1, 348),
     (aux_sym_repeat_stmt_token1, 350), (aux_sym_raise_stmt_token1, 352),
     (aux_sym_try_stmt_token1, 354), (aux_sym_try_stmt_token2, 356),
     (aux_sym_catch_clause_token1, 356), (aux_sym_finally_clause_token1, 356), (sym_ld_rung, 358),
     (sym_fbd_network, 360), (sym_c_style_comment, 3), (sym_pascal_style_comment, 3),
     (sym_pragma, 3)]"

lemma ts_parse_row_419_scan: "row_scan tokens_63_2 0 ts_parse_row_419 = Some (Suc (Suc (Suc (Suc 0))))"
  unfolding ts_parse_row_419_def by simp

text \<open>Lines 102669 to 102781.\<close>

definition ts_parse_row_420 :: parse_row where
  "ts_parse_row_420 =
    [(sym_ERR_assign_func_call, 7530), (sym_ERR_unexpected_this_in_path, 2372),
     (sym_ERR_unexpected_super_in_path, 2372), (sym_ERR_fb_variables_after_method, 1956),
     (sym_ERR_var_access_not_allowed, 3160), (sym_ERR_var_config_not_allowed, 3160),
     (sym_ERR_var_global_not_allowed, 3160), (sym_ERR_method_decl_in_body, 3150),
     (sym_extern_pragma, 7490), (sym_wasm_pragma, 3150), (sym_warn_pragma, 7490),
     (sym_allow_pragma, 3140), (sym_test_pragma, 7490), (sym_once_pragma, 7490),
     (sym_must_call_pragma, 7490), (sym_export_pragma, 7490), (sym_pou_pragma, 7194),
     (sym_direct_variable, 7675), (sym_deref_expression, 2373), (sym_variable, 7599),
     (sym_var_access, 2373), (sym_in_out_decls, 3160), (sym_var_decls, 3160),
     (sym_retain_var_decls, 3160), (sym_temp_var_decls, 3160), (sym_external_var_decls, 3160),
     (sym_global_var_decls, 2947), (sym_loc_partly_var_decl, 3160), (sym__fb_variables, 2343),
     (sym_fb_input_decls, 3160), (sym_fb_output_decls, 3160), (sym_no_retain_var_decls, 3160),
     (sym_fb_body, 9208), (sym_method_decl, 2549), (sym_prog_access_decls, 3043), (sym_SFC, 7970),
     (sym_SFC_network, 7612), (sym_initial_step, 7439), (sym_config_init, 3047),
     (sym_variable_access, 7530), (sym_func_call, 2961), (sym_stmt_list, 7970), (sym__stmt, 2024),
     (sym_assign, 3150), (sym_if_stmt, 3150), (sym_case_stmt, 3150), (sym_for_stmt, 3150),
     (sym_while_stmt, 3150), (sym_repeat_stmt, 3150), (sym_raise_stmt, 3150), (sym_try_stmt, 3150),
     (sym_ERR_clause_outside_try, 3150), (sym_begin_path_expression, 2943), (sym_invocation, 2934),
     (sym_any_invocation, 2935), (sym_this_invocation, 2641), (sym_super_invocation, 2641),
     (sym_super_body_invocation, 2935), (sym_path_expression, 2627), (sym_field_expression, 2373),
     (sym_index_expression, 2373), (sym_ladder_diagram, 7970), (sym_fb_diagram, 7970),
     (aux_sym_ERR_fb_variables_after_method_repeat1, 2343), (aux_sym_func_decl_repeat1, 7194),
     (aux_sym_fb_decl_repeat3, 2549), (aux_sym_SFC_repeat1, 7612),
     (aux_sym_stmt_list_repeat1, 2024), (aux_sym_ladder_diagram_repeat1, 8009),
     (aux_sym_fb_diagram_repeat1, 8013), (sym_identifier, 298),
     (aux_sym_ERR_unexpected_this_in_path_token1, 304),
     (aux_sym_ERR_unexpected_super_in_path_token1, 306), (sym_line_comment, 3),
     (anon_sym_LBRACE, 308), (aux_sym_test_pragma_token1, 9), (aux_sym_once_pragma_token1, 11),
     (aux_sym_must_call_pragma_token1, 13), (aux_sym_export_pragma_token1, 15),
     (anon_sym_SEMI, 310), (anon_sym_PERCENT, 312), (aux_sym_input_decls_token1, 314),
     (aux_sym_output_decls_token1, 316), (aux_sym_in_out_decls_token1, 318),
     (aux_sym_var_decls_token1, 320), (aux_sym_temp_var_decls_token1, 322),
     (aux_sym_external_var_decls_token1, 324), (aux_sym_global_var_decls_token1, 326),
     (aux_sym_fb_decl_token4, 1170), (aux_sym_method_decl_token1, 330),
     (aux_sym_prog_access_decls_token1, 332), (aux_sym_initial_step_token1, 334),
     (aux_sym_config_init_token1, 336), (aux_sym__stmt_token1, 340), (aux_sym__stmt_token2, 340),
     (aux_sym__stmt_token3, 340), (aux_sym_if_stmt_token1, 342), (aux_sym_case_stmt_token1, 344),
     (aux_sym_for_stmt_token1, 346), (aux_sym_while_stmt_token1, 348),
     (aux_sym_repeat_stmt_token1, 350), (aux_sym_raise_stmt_token1, 352),
     (aux_sym_try_stmt_token1, 354), (aux_sym_try_stmt_token2, 356),
     (aux_sym_catch_clause_token1, 356), (aux_sym_finally_clause_token1, 356), (sym_ld_rung, 358),
     (sym_fbd_network, 360), (sym_c_style_comment, 3), (sym_pascal_style_comment, 3),
     (sym_pragma, 3)]"

lemma ts_parse_row_420_scan: "row_scan tokens_63_2 0 ts_parse_row_420 = Some (Suc (Suc (Suc (Suc 0))))"
  unfolding ts_parse_row_420_def by simp

text \<open>Lines 102782 to 102894.\<close>

definition ts_parse_row_421 :: parse_row where
  "ts_parse_row_421 =
    [(sym_ERR_assign_func_call, 7530), (sym_ERR_unexpected_this_in_path, 2372),
     (sym_ERR_unexpected_super_in_path, 2372), (sym_ERR_fb_variables_after_method, 1309),
     (sym_ERR_var_access_not_allowed, 3160), (sym_ERR_var_config_not_allowed, 3160),
     (sym_ERR_var_global_not_allowed, 3160), (sym_ERR_method_decl_in_body, 3150),
     (sym_extern_pragma, 7490), (sym_wasm_pragma, 3150), (sym_warn_pragma, 7490),
     (sym_allow_pragma, 3140), (sym_test_pragma, 7490), (sym_once_pragma, 7490),
     (sym_must_call_pragma, 7490), (sym_export_pragma, 7490), (sym_pou_pragma, 7194),
     (sym_direct_variable, 7675), (sym_deref_expression, 2373), (sym_variable, 7599),
     (sym_var_access, 2373), (sym_in_out_decls, 3160), (sym_var_decls, 3160),
     (sym_retain_var_decls, 3160), (sym_temp_var_decls, 3160), (sym_external_var_decls, 3160),
     (sym_global_var_decls, 2947), (sym_loc_partly_var_decl, 3160), (sym__fb_variables, 2343),
     (sym_fb_input_decls, 3160), (sym_fb_output_decls, 3160), (sym_no_retain_var_decls, 3160),
     (sym_fb_body, 9783), (sym_method_decl, 2549), (sym_prog_access_decls, 3043), (sym_SFC, 7970),
     (sym_SFC_network, 7612), (sym_initial_step, 7439), (sym_config_init, 3047),
     (sym_variable_access, 7530), (sym_func_call, 2961), (sym_stmt_list, 7970), (sym__stmt, 2024),
     (sym_assign, 3150), (sym_if_stmt, 3150), (sym_case_stmt, 3150), (sym_for_stmt, 3150),
     (sym_while_stmt, 3150), (sym_repeat_stmt, 3150), (sym_raise_stmt, 3150), (sym_try_stmt, 3150),
     (sym_ERR_clause_outside_try, 3150), (sym_begin_path_expression, 2943), (sym_invocation, 2934),
     (sym_any_invocation, 2935), (sym_this_invocation, 2641), (sym_super_invocation, 2641),
     (sym_super_body_invocation, 2935), (sym_path_expression, 2627), (sym_field_expression, 2373),
     (sym_index_expression, 2373), (sym_ladder_diagram, 7970), (sym_fb_diagram, 7970),
     (aux_sym_ERR_fb_variables_after_method_repeat1, 2343), (aux_sym_func_decl_repeat1, 7194),
     (aux_sym_fb_decl_repeat3, 2549), (aux_sym_SFC_repeat1, 7612),
     (aux_sym_stmt_list_repeat1, 2024), (aux_sym_ladder_diagram_repeat1, 8009),
     (aux_sym_fb_diagram_repeat1, 8013), (sym_identifier, 298),
     (aux_sym_ERR_unexpected_this_in_path_token1, 304),
     (aux_sym_ERR_unexpected_super_in_path_token1, 306), (sym_line_comment, 3),
     (anon_sym_LBRACE, 308), (aux_sym_test_pragma_token1, 9), (aux_sym_once_pragma_token1, 11),
     (aux_sym_must_call_pragma_token1, 13), (aux_sym_export_pragma_token1, 15),
     (anon_sym_SEMI, 310), (anon_sym_PERCENT, 312), (aux_sym_input_decls_token1, 314),
     (aux_sym_output_decls_token1, 316), (aux_sym_in_out_decls_token1, 318),
     (aux_sym_var_decls_token1, 320), (aux_sym_temp_var_decls_token1, 322),
     (aux_sym_external_var_decls_token1, 324), (aux_sym_global_var_decls_token1, 326),
     (aux_sym_fb_decl_token4, 1172), (aux_sym_method_decl_token1, 330),
     (aux_sym_prog_access_decls_token1, 332), (aux_sym_initial_step_token1, 334),
     (aux_sym_config_init_token1, 336), (aux_sym__stmt_token1, 340), (aux_sym__stmt_token2, 340),
     (aux_sym__stmt_token3, 340), (aux_sym_if_stmt_token1, 342), (aux_sym_case_stmt_token1, 344),
     (aux_sym_for_stmt_token1, 346), (aux_sym_while_stmt_token1, 348),
     (aux_sym_repeat_stmt_token1, 350), (aux_sym_raise_stmt_token1, 352),
     (aux_sym_try_stmt_token1, 354), (aux_sym_try_stmt_token2, 356),
     (aux_sym_catch_clause_token1, 356), (aux_sym_finally_clause_token1, 356), (sym_ld_rung, 358),
     (sym_fbd_network, 360), (sym_c_style_comment, 3), (sym_pascal_style_comment, 3),
     (sym_pragma, 3)]"

lemma ts_parse_row_421_scan: "row_scan tokens_63_2 0 ts_parse_row_421 = Some (Suc (Suc (Suc (Suc 0))))"
  unfolding ts_parse_row_421_def by simp

text \<open>Lines 102895 to 103007.\<close>

definition ts_parse_row_422 :: parse_row where
  "ts_parse_row_422 =
    [(sym_ERR_assign_func_call, 7530), (sym_ERR_unexpected_this_in_path, 2372),
     (sym_ERR_unexpected_super_in_path, 2372), (sym_ERR_fb_variables_after_method, 1310),
     (sym_ERR_var_access_not_allowed, 3160), (sym_ERR_var_config_not_allowed, 3160),
     (sym_ERR_var_global_not_allowed, 3160), (sym_ERR_method_decl_in_body, 3150),
     (sym_extern_pragma, 7490), (sym_wasm_pragma, 3150), (sym_warn_pragma, 7490),
     (sym_allow_pragma, 3140), (sym_test_pragma, 7490), (sym_once_pragma, 7490),
     (sym_must_call_pragma, 7490), (sym_export_pragma, 7490), (sym_pou_pragma, 7194),
     (sym_direct_variable, 7675), (sym_deref_expression, 2373), (sym_variable, 7599),
     (sym_var_access, 2373), (sym_in_out_decls, 3160), (sym_var_decls, 3160),
     (sym_retain_var_decls, 3160), (sym_temp_var_decls, 3160), (sym_external_var_decls, 3160),
     (sym_global_var_decls, 2947), (sym_loc_partly_var_decl, 3160), (sym__fb_variables, 2347),
     (sym_fb_input_decls, 3160), (sym_fb_output_decls, 3160), (sym_no_retain_var_decls, 3160),
     (sym_fb_body, 9797), (sym_method_decl, 562), (sym_prog_access_decls, 3043), (sym_SFC, 7970),
     (sym_SFC_network, 7612), (sym_initial_step, 7439), (sym_config_init, 3047),
     (sym_variable_access, 7530), (sym_func_call, 2961), (sym_stmt_list, 7970), (sym__stmt, 2024),
     (sym_assign, 3150), (sym_if_stmt, 3150), (sym_case_stmt, 3150), (sym_for_stmt, 3150),
     (sym_while_stmt, 3150), (sym_repeat_stmt, 3150), (sym_raise_stmt, 3150), (sym_try_stmt, 3150),
     (sym_ERR_clause_outside_try, 3150), (sym_begin_path_expression, 2943), (sym_invocation, 2934),
     (sym_any_invocation, 2935), (sym_this_invocation, 2641), (sym_super_invocation, 2641),
     (sym_super_body_invocation, 2935), (sym_path_expression, 2627), (sym_field_expression, 2373),
     (sym_index_expression, 2373), (sym_ladder_diagram, 7970), (sym_fb_diagram, 7970),
     (aux_sym_ERR_fb_variables_after_method_repeat1, 2347), (aux_sym_func_decl_repeat1, 7194),
     (aux_sym_fb_decl_repeat3, 562), (aux_sym_SFC_repeat1, 7612), (aux_sym_stmt_list_repeat1, 2024),
     (aux_sym_ladder_diagram_repeat1, 8009), (aux_sym_fb_diagram_repeat1, 8013),
     (sym_identifier, 298), (aux_sym_ERR_unexpected_this_in_path_token1, 304),
     (aux_sym_ERR_unexpected_super_in_path_token1, 306), (sym_line_comment, 3),
     (anon_sym_LBRACE, 308), (aux_sym_test_pragma_token1, 9), (aux_sym_once_pragma_token1, 11),
     (aux_sym_must_call_pragma_token1, 13), (aux_sym_export_pragma_token1, 15),
     (anon_sym_SEMI, 310), (anon_sym_PERCENT, 312), (aux_sym_input_decls_token1, 314),
     (aux_sym_output_decls_token1, 316), (aux_sym_in_out_decls_token1, 318),
     (aux_sym_var_decls_token1, 320), (aux_sym_temp_var_decls_token1, 322),
     (aux_sym_external_var_decls_token1, 324), (aux_sym_global_var_decls_token1, 326),
     (aux_sym_fb_decl_token4, 1174), (aux_sym_method_decl_token1, 330),
     (aux_sym_prog_access_decls_token1, 332), (aux_sym_initial_step_token1, 334),
     (aux_sym_config_init_token1, 336), (aux_sym__stmt_token1, 340), (aux_sym__stmt_token2, 340),
     (aux_sym__stmt_token3, 340), (aux_sym_if_stmt_token1, 342), (aux_sym_case_stmt_token1, 344),
     (aux_sym_for_stmt_token1, 346), (aux_sym_while_stmt_token1, 348),
     (aux_sym_repeat_stmt_token1, 350), (aux_sym_raise_stmt_token1, 352),
     (aux_sym_try_stmt_token1, 354), (aux_sym_try_stmt_token2, 356),
     (aux_sym_catch_clause_token1, 356), (aux_sym_finally_clause_token1, 356), (sym_ld_rung, 358),
     (sym_fbd_network, 360), (sym_c_style_comment, 3), (sym_pascal_style_comment, 3),
     (sym_pragma, 3)]"

lemma ts_parse_row_422_scan: "row_scan tokens_63_2 0 ts_parse_row_422 = Some (Suc (Suc (Suc (Suc 0))))"
  unfolding ts_parse_row_422_def by simp

text \<open>Lines 103008 to 103120.\<close>

definition ts_parse_row_423 :: parse_row where
  "ts_parse_row_423 =
    [(sym_ERR_assign_func_call, 7530), (sym_ERR_unexpected_this_in_path, 2372),
     (sym_ERR_unexpected_super_in_path, 2372), (sym_ERR_fb_variables_after_method, 1960),
     (sym_ERR_var_access_not_allowed, 3160), (sym_ERR_var_config_not_allowed, 3160),
     (sym_ERR_var_global_not_allowed, 3160), (sym_ERR_method_decl_in_body, 3150),
     (sym_extern_pragma, 7490), (sym_wasm_pragma, 3150), (sym_warn_pragma, 7490),
     (sym_allow_pragma, 3140), (sym_test_pragma, 7490), (sym_once_pragma, 7490),
     (sym_must_call_pragma, 7490), (sym_export_pragma, 7490), (sym_pou_pragma, 7194),
     (sym_direct_variable, 7675), (sym_deref_expression, 2373), (sym_variable, 7599),
     (sym_var_access, 2373), (sym_in_out_decls, 3160), (sym_var_decls, 3160),
     (sym_retain_var_decls, 3160), (sym_temp_var_decls, 3160), (sym_external_var_decls, 3160),
     (sym_global_var_decls, 2947), (sym_loc_partly_var_decl, 3160), (sym__fb_variables, 2347),
     (sym_fb_input_decls, 3160), (sym_fb_output_decls, 3160), (sym_no_retain_var_decls, 3160),
     (sym_fb_body, 9234), (sym_method_decl, 477), (sym_prog_access_decls, 3043), (sym_SFC, 7970),
     (sym_SFC_network, 7612), (sym_initial_step, 7439), (sym_config_init, 3047),
     (sym_variable_access, 7530), (sym_func_call, 2961), (sym_stmt_list, 7970), (sym__stmt, 2024),
     (sym_assign, 3150), (sym_if_stmt, 3150), (sym_case_stmt, 3150), (sym_for_stmt, 3150),
     (sym_while_stmt, 3150), (sym_repeat_stmt, 3150), (sym_raise_stmt, 3150), (sym_try_stmt, 3150),
     (sym_ERR_clause_outside_try, 3150), (sym_begin_path_expression, 2943), (sym_invocation, 2934),
     (sym_any_invocation, 2935), (sym_this_invocation, 2641), (sym_super_invocation, 2641),
     (sym_super_body_invocation, 2935), (sym_path_expression, 2627), (sym_field_expression, 2373),
     (sym_index_expression, 2373), (sym_ladder_diagram, 7970), (sym_fb_diagram, 7970),
     (aux_sym_ERR_fb_variables_after_method_repeat1, 2347), (aux_sym_func_decl_repeat1, 7194),
     (aux_sym_fb_decl_repeat3, 477), (aux_sym_SFC_repeat1, 7612), (aux_sym_stmt_list_repeat1, 2024),
     (aux_sym_ladder_diagram_repeat1, 8009), (aux_sym_fb_diagram_repeat1, 8013),
     (sym_identifier, 298), (aux_sym_ERR_unexpected_this_in_path_token1, 304),
     (aux_sym_ERR_unexpected_super_in_path_token1, 306), (sym_line_comment, 3),
     (anon_sym_LBRACE, 308), (aux_sym_test_pragma_token1, 9), (aux_sym_once_pragma_token1, 11),
     (aux_sym_must_call_pragma_token1, 13), (aux_sym_export_pragma_token1, 15),
     (anon_sym_SEMI, 310), (anon_sym_PERCENT, 312), (aux_sym_input_decls_token1, 314),
     (aux_sym_output_decls_token1, 316), (aux_sym_in_out_decls_token1, 318),
     (aux_sym_var_decls_token1, 320), (aux_sym_temp_var_decls_token1, 322),
     (aux_sym_external_var_decls_token1, 324), (aux_sym_global_var_decls_token1, 326),
     (aux_sym_fb_decl_token4, 1176), (aux_sym_method_decl_token1, 330),
     (aux_sym_prog_access_decls_token1, 332), (aux_sym_initial_step_token1, 334),
     (aux_sym_config_init_token1, 336), (aux_sym__stmt_token1, 340), (aux_sym__stmt_token2, 340),
     (aux_sym__stmt_token3, 340), (aux_sym_if_stmt_token1, 342), (aux_sym_case_stmt_token1, 344),
     (aux_sym_for_stmt_token1, 346), (aux_sym_while_stmt_token1, 348),
     (aux_sym_repeat_stmt_token1, 350), (aux_sym_raise_stmt_token1, 352),
     (aux_sym_try_stmt_token1, 354), (aux_sym_try_stmt_token2, 356),
     (aux_sym_catch_clause_token1, 356), (aux_sym_finally_clause_token1, 356), (sym_ld_rung, 358),
     (sym_fbd_network, 360), (sym_c_style_comment, 3), (sym_pascal_style_comment, 3),
     (sym_pragma, 3)]"

lemma ts_parse_row_423_scan: "row_scan tokens_63_2 0 ts_parse_row_423 = Some (Suc (Suc (Suc (Suc 0))))"
  unfolding ts_parse_row_423_def by simp

text \<open>Lines 103121 to 103233.\<close>

definition ts_parse_row_424 :: parse_row where
  "ts_parse_row_424 =
    [(sym_ERR_assign_func_call, 7530), (sym_ERR_unexpected_this_in_path, 2372),
     (sym_ERR_unexpected_super_in_path, 2372), (sym_ERR_fb_variables_after_method, 1635),
     (sym_ERR_var_access_not_allowed, 3160), (sym_ERR_var_config_not_allowed, 3160),
     (sym_ERR_var_global_not_allowed, 3160), (sym_ERR_method_decl_in_body, 3150),
     (sym_extern_pragma, 7490), (sym_wasm_pragma, 3150), (sym_warn_pragma, 7490),
     (sym_allow_pragma, 3140), (sym_test_pragma, 7490), (sym_once_pragma, 7490),
     (sym_must_call_pragma, 7490), (sym_export_pragma, 7490), (sym_pou_pragma, 7194),
     (sym_direct_variable, 7675), (sym_deref_expression, 2373), (sym_variable, 7599),
     (sym_var_access, 2373), (sym_in_out_decls, 3160), (sym_var_decls, 3160),
     (sym_retain_var_decls, 3160), (sym_temp_var_decls, 3160), (sym_external_var_decls, 3160),
     (sym_global_var_decls, 2947), (sym_loc_partly_var_decl, 3160), (sym__fb_variables, 2347),
     (sym_fb_input_decls, 3160), (sym_fb_output_decls, 3160), (sym_no_retain_var_decls, 3160),
     (sym_fb_body, 8279), (sym_method_decl, 875), (sym_prog_access_decls, 3043), (sym_SFC, 7970),
     (sym_SFC_network, 7612), (sym_initial_step, 7439), (sym_config_init, 3047),
     (sym_variable_access, 7530), (sym_func_call, 2961), (sym_stmt_list, 7970), (sym__stmt, 2024),
     (sym_assign, 3150), (sym_if_stmt, 3150), (sym_case_stmt, 3150), (sym_for_stmt, 3150),
     (sym_while_stmt, 3150), (sym_repeat_stmt, 3150), (sym_raise_stmt, 3150), (sym_try_stmt, 3150),
     (sym_ERR_clause_outside_try, 3150), (sym_begin_path_expression, 2943), (sym_invocation, 2934),
     (sym_any_invocation, 2935), (sym_this_invocation, 2641), (sym_super_invocation, 2641),
     (sym_super_body_invocation, 2935), (sym_path_expression, 2627), (sym_field_expression, 2373),
     (sym_index_expression, 2373), (sym_ladder_diagram, 7970), (sym_fb_diagram, 7970),
     (aux_sym_ERR_fb_variables_after_method_repeat1, 2347), (aux_sym_func_decl_repeat1, 7194),
     (aux_sym_fb_decl_repeat3, 875), (aux_sym_SFC_repeat1, 7612), (aux_sym_stmt_list_repeat1, 2024),
     (aux_sym_ladder_diagram_repeat1, 8009), (aux_sym_fb_diagram_repeat1, 8013),
     (sym_identifier, 298), (aux_sym_ERR_unexpected_this_in_path_token1, 304),
     (aux_sym_ERR_unexpected_super_in_path_token1, 306), (sym_line_comment, 3),
     (anon_sym_LBRACE, 308), (aux_sym_test_pragma_token1, 9), (aux_sym_once_pragma_token1, 11),
     (aux_sym_must_call_pragma_token1, 13), (aux_sym_export_pragma_token1, 15),
     (anon_sym_SEMI, 310), (anon_sym_PERCENT, 312), (aux_sym_input_decls_token1, 314),
     (aux_sym_output_decls_token1, 316), (aux_sym_in_out_decls_token1, 318),
     (aux_sym_var_decls_token1, 320), (aux_sym_temp_var_decls_token1, 322),
     (aux_sym_external_var_decls_token1, 324), (aux_sym_global_var_decls_token1, 326),
     (aux_sym_fb_decl_token4, 1178), (aux_sym_method_decl_token1, 330),
     (aux_sym_prog_access_decls_token1, 332), (aux_sym_initial_step_token1, 334),
     (aux_sym_config_init_token1, 336), (aux_sym__stmt_token1, 340), (aux_sym__stmt_token2, 340),
     (aux_sym__stmt_token3, 340), (aux_sym_if_stmt_token1, 342), (aux_sym_case_stmt_token1, 344),
     (aux_sym_for_stmt_token1, 346), (aux_sym_while_stmt_token1, 348),
     (aux_sym_repeat_stmt_token1, 350), (aux_sym_raise_stmt_token1, 352),
     (aux_sym_try_stmt_token1, 354), (aux_sym_try_stmt_token2, 356),
     (aux_sym_catch_clause_token1, 356), (aux_sym_finally_clause_token1, 356), (sym_ld_rung, 358),
     (sym_fbd_network, 360), (sym_c_style_comment, 3), (sym_pascal_style_comment, 3),
     (sym_pragma, 3)]"

lemma ts_parse_row_424_scan: "row_scan tokens_63_2 0 ts_parse_row_424 = Some (Suc (Suc (Suc (Suc 0))))"
  unfolding ts_parse_row_424_def by simp

text \<open>Lines 103234 to 103346.\<close>

definition ts_parse_row_425 :: parse_row where
  "ts_parse_row_425 =
    [(sym_ERR_assign_func_call, 7530), (sym_ERR_unexpected_this_in_path, 2372),
     (sym_ERR_unexpected_super_in_path, 2372), (sym_ERR_fb_variables_after_method, 1314),
     (sym_ERR_var_access_not_allowed, 3160), (sym_ERR_var_config_not_allowed, 3160),
     (sym_ERR_var_global_not_allowed, 3160), (sym_ERR_method_decl_in_body, 3150),
     (sym_extern_pragma, 7490), (sym_wasm_pragma, 3150), (sym_warn_pragma, 7490),
     (sym_allow_pragma, 3140), (sym_test_pragma, 7490), (sym_once_pragma, 7490),
     (sym_must_call_pragma, 7490), (sym_export_pragma, 7490), (sym_pou_pragma, 7194),
     (sym_direct_variable, 7675), (sym_deref_expression, 2373), (sym_variable, 7599),
     (sym_var_access, 2373), (sym_in_out_decls, 3160), (sym_var_decls, 3160),
     (sym_retain_var_decls, 3160), (sym_temp_var_decls, 3160), (sym_external_var_decls, 3160),
     (sym_global_var_decls, 2947), (sym_loc_partly_var_decl, 3160), (sym__fb_variables, 2343),
     (sym_fb_input_decls, 3160), (sym_fb_output_decls, 3160), (sym_no_retain_var_decls, 3160),
     (sym_fb_body, 9821), (sym_method_decl, 2549), (sym_prog_access_decls, 3043), (sym_SFC, 7970),
     (sym_SFC_network, 7612), (sym_initial_step, 7439), (sym_config_init, 3047),
     (sym_variable_access, 7530), (sym_func_call, 2961), (sym_stmt_list, 7970), (sym__stmt, 2024),
     (sym_assign, 3150), (sym_if_stmt, 3150), (sym_case_stmt, 3150), (sym_for_stmt, 3150),
     (sym_while_stmt, 3150), (sym_repeat_stmt, 3150), (sym_raise_stmt, 3150), (sym_try_stmt, 3150),
     (sym_ERR_clause_outside_try, 3150), (sym_begin_path_expression, 2943), (sym_invocation, 2934),
     (sym_any_invocation, 2935), (sym_this_invocation, 2641), (sym_super_invocation, 2641),
     (sym_super_body_invocation, 2935), (sym_path_expression, 2627), (sym_field_expression, 2373),
     (sym_index_expression, 2373), (sym_ladder_diagram, 7970), (sym_fb_diagram, 7970),
     (aux_sym_ERR_fb_variables_after_method_repeat1, 2343), (aux_sym_func_decl_repeat1, 7194),
     (aux_sym_fb_decl_repeat3, 2549), (aux_sym_SFC_repeat1, 7612),
     (aux_sym_stmt_list_repeat1, 2024), (aux_sym_ladder_diagram_repeat1, 8009),
     (aux_sym_fb_diagram_repeat1, 8013), (sym_identifier, 298),
     (aux_sym_ERR_unexpected_this_in_path_token1, 304),
     (aux_sym_ERR_unexpected_super_in_path_token1, 306), (sym_line_comment, 3),
     (anon_sym_LBRACE, 308), (aux_sym_test_pragma_token1, 9), (aux_sym_once_pragma_token1, 11),
     (aux_sym_must_call_pragma_token1, 13), (aux_sym_export_pragma_token1, 15),
     (anon_sym_SEMI, 310), (anon_sym_PERCENT, 312), (aux_sym_input_decls_token1, 314),
     (aux_sym_output_decls_token1, 316), (aux_sym_in_out_decls_token1, 318),
     (aux_sym_var_decls_token1, 320), (aux_sym_temp_var_decls_token1, 322),
     (aux_sym_external_var_decls_token1, 324), (aux_sym_global_var_decls_token1, 326),
     (aux_sym_fb_decl_token4, 1180), (aux_sym_method_decl_token1, 330),
     (aux_sym_prog_access_decls_token1, 332), (aux_sym_initial_step_token1, 334),
     (aux_sym_config_init_token1, 336), (aux_sym__stmt_token1, 340), (aux_sym__stmt_token2, 340),
     (aux_sym__stmt_token3, 340), (aux_sym_if_stmt_token1, 342), (aux_sym_case_stmt_token1, 344),
     (aux_sym_for_stmt_token1, 346), (aux_sym_while_stmt_token1, 348),
     (aux_sym_repeat_stmt_token1, 350), (aux_sym_raise_stmt_token1, 352),
     (aux_sym_try_stmt_token1, 354), (aux_sym_try_stmt_token2, 356),
     (aux_sym_catch_clause_token1, 356), (aux_sym_finally_clause_token1, 356), (sym_ld_rung, 358),
     (sym_fbd_network, 360), (sym_c_style_comment, 3), (sym_pascal_style_comment, 3),
     (sym_pragma, 3)]"

lemma ts_parse_row_425_scan: "row_scan tokens_63_2 0 ts_parse_row_425 = Some (Suc (Suc (Suc (Suc 0))))"
  unfolding ts_parse_row_425_def by simp

text \<open>Lines 103347 to 103459.\<close>

definition ts_parse_row_426 :: parse_row where
  "ts_parse_row_426 =
    [(sym_ERR_assign_func_call, 7530), (sym_ERR_unexpected_this_in_path, 2372),
     (sym_ERR_unexpected_super_in_path, 2372), (sym_ERR_fb_variables_after_method, 1316),
     (sym_ERR_var_access_not_allowed, 3160), (sym_ERR_var_config_not_allowed, 3160),
     (sym_ERR_var_global_not_allowed, 3160), (sym_ERR_method_decl_in_body, 3150),
     (sym_extern_pragma, 7490), (sym_wasm_pragma, 3150), (sym_warn_pragma, 7490),
     (sym_allow_pragma, 3140), (sym_test_pragma, 7490), (sym_once_pragma, 7490),
     (sym_must_call_pragma, 7490), (sym_export_pragma, 7490), (sym_pou_pragma, 7194),
     (sym_direct_variable, 7675), (sym_deref_expression, 2373), (sym_variable, 7599),
     (sym_var_access, 2373), (sym_in_out_decls, 3160), (sym_var_decls, 3160),
     (sym_retain_var_decls, 3160), (sym_temp_var_decls, 3160), (sym_external_var_decls, 3160),
     (sym_global_var_decls, 2947), (sym_loc_partly_var_decl, 3160), (sym__fb_variables, 2347),
     (sym_fb_input_decls, 3160), (sym_fb_output_decls, 3160), (sym_no_retain_var_decls, 3160),
     (sym_fb_body, 9831), (sym_method_decl, 569), (sym_prog_access_decls, 3043), (sym_SFC, 7970),
     (sym_SFC_network, 7612), (sym_initial_step, 7439), (sym_config_init, 3047),
     (sym_variable_access, 7530), (sym_func_call, 2961), (sym_stmt_list, 7970), (sym__stmt, 2024),
     (sym_assign, 3150), (sym_if_stmt, 3150), (sym_case_stmt, 3150), (sym_for_stmt, 3150),
     (sym_while_stmt, 3150), (sym_repeat_stmt, 3150), (sym_raise_stmt, 3150), (sym_try_stmt, 3150),
     (sym_ERR_clause_outside_try, 3150), (sym_begin_path_expression, 2943), (sym_invocation, 2934),
     (sym_any_invocation, 2935), (sym_this_invocation, 2641), (sym_super_invocation, 2641),
     (sym_super_body_invocation, 2935), (sym_path_expression, 2627), (sym_field_expression, 2373),
     (sym_index_expression, 2373), (sym_ladder_diagram, 7970), (sym_fb_diagram, 7970),
     (aux_sym_ERR_fb_variables_after_method_repeat1, 2347), (aux_sym_func_decl_repeat1, 7194),
     (aux_sym_fb_decl_repeat3, 569), (aux_sym_SFC_repeat1, 7612), (aux_sym_stmt_list_repeat1, 2024),
     (aux_sym_ladder_diagram_repeat1, 8009), (aux_sym_fb_diagram_repeat1, 8013),
     (sym_identifier, 298), (aux_sym_ERR_unexpected_this_in_path_token1, 304),
     (aux_sym_ERR_unexpected_super_in_path_token1, 306), (sym_line_comment, 3),
     (anon_sym_LBRACE, 308), (aux_sym_test_pragma_token1, 9), (aux_sym_once_pragma_token1, 11),
     (aux_sym_must_call_pragma_token1, 13), (aux_sym_export_pragma_token1, 15),
     (anon_sym_SEMI, 310), (anon_sym_PERCENT, 312), (aux_sym_input_decls_token1, 314),
     (aux_sym_output_decls_token1, 316), (aux_sym_in_out_decls_token1, 318),
     (aux_sym_var_decls_token1, 320), (aux_sym_temp_var_decls_token1, 322),
     (aux_sym_external_var_decls_token1, 324), (aux_sym_global_var_decls_token1, 326),
     (aux_sym_fb_decl_token4, 1182), (aux_sym_method_decl_token1, 330),
     (aux_sym_prog_access_decls_token1, 332), (aux_sym_initial_step_token1, 334),
     (aux_sym_config_init_token1, 336), (aux_sym__stmt_token1, 340), (aux_sym__stmt_token2, 340),
     (aux_sym__stmt_token3, 340), (aux_sym_if_stmt_token1, 342), (aux_sym_case_stmt_token1, 344),
     (aux_sym_for_stmt_token1, 346), (aux_sym_while_stmt_token1, 348),
     (aux_sym_repeat_stmt_token1, 350), (aux_sym_raise_stmt_token1, 352),
     (aux_sym_try_stmt_token1, 354), (aux_sym_try_stmt_token2, 356),
     (aux_sym_catch_clause_token1, 356), (aux_sym_finally_clause_token1, 356), (sym_ld_rung, 358),
     (sym_fbd_network, 360), (sym_c_style_comment, 3), (sym_pascal_style_comment, 3),
     (sym_pragma, 3)]"

lemma ts_parse_row_426_scan: "row_scan tokens_63_2 0 ts_parse_row_426 = Some (Suc (Suc (Suc (Suc 0))))"
  unfolding ts_parse_row_426_def by simp

text \<open>Lines 103460 to 103572.\<close>

definition ts_parse_row_427 :: parse_row where
  "ts_parse_row_427 =
    [(sym_ERR_assign_func_call, 7530), (sym_ERR_unexpected_this_in_path, 2372),
     (sym_ERR_unexpected_super_in_path, 2372), (sym_ERR_fb_variables_after_method, 1841),
     (sym_ERR_var_access_not_allowed, 3160), (sym_ERR_var_config_not_allowed, 3160),
     (sym_ERR_var_global_not_allowed, 3160), (sym_ERR_method_decl_in_body, 3150),
     (sym_extern_pragma, 7490), (sym_wasm_pragma, 3150), (sym_warn_pragma, 7490),
     (sym_allow_pragma, 3140), (sym_test_pragma, 7490), (sym_once_pragma, 7490),
     (sym_must_call_pragma, 7490), (sym_export_pragma, 7490), (sym_pou_pragma, 7194),
     (sym_direct_variable, 7675), (sym_deref_expression, 2373), (sym_variable, 7599),
     (sym_var_access, 2373), (sym_in_out_decls, 3160), (sym_var_decls, 3160),
     (sym_retain_var_decls, 3160), (sym_temp_var_decls, 3160), (sym_external_var_decls, 3160),
     (sym_global_var_decls, 2947), (sym_loc_partly_var_decl, 3160), (sym__fb_variables, 2347),
     (sym_fb_input_decls, 3160), (sym_fb_output_decls, 3160), (sym_no_retain_var_decls, 3160),
     (sym_fb_body, 9433), (sym_method_decl, 825), (sym_prog_access_decls, 3043), (sym_SFC, 7970),
     (sym_SFC_network, 7612), (sym_initial_step, 7439), (sym_config_init, 3047),
     (sym_variable_access, 7530), (sym_func_call, 2961), (sym_stmt_list, 7970), (sym__stmt, 2024),
     (sym_assign, 3150), (sym_if_stmt, 3150), (sym_case_stmt, 3150), (sym_for_stmt, 3150),
     (sym_while_stmt, 3150), (sym_repeat_stmt, 3150), (sym_raise_stmt, 3150), (sym_try_stmt, 3150),
     (sym_ERR_clause_outside_try, 3150), (sym_begin_path_expression, 2943), (sym_invocation, 2934),
     (sym_any_invocation, 2935), (sym_this_invocation, 2641), (sym_super_invocation, 2641),
     (sym_super_body_invocation, 2935), (sym_path_expression, 2627), (sym_field_expression, 2373),
     (sym_index_expression, 2373), (sym_ladder_diagram, 7970), (sym_fb_diagram, 7970),
     (aux_sym_ERR_fb_variables_after_method_repeat1, 2347), (aux_sym_func_decl_repeat1, 7194),
     (aux_sym_fb_decl_repeat3, 825), (aux_sym_SFC_repeat1, 7612), (aux_sym_stmt_list_repeat1, 2024),
     (aux_sym_ladder_diagram_repeat1, 8009), (aux_sym_fb_diagram_repeat1, 8013),
     (sym_identifier, 298), (aux_sym_ERR_unexpected_this_in_path_token1, 304),
     (aux_sym_ERR_unexpected_super_in_path_token1, 306), (sym_line_comment, 3),
     (anon_sym_LBRACE, 308), (aux_sym_test_pragma_token1, 9), (aux_sym_once_pragma_token1, 11),
     (aux_sym_must_call_pragma_token1, 13), (aux_sym_export_pragma_token1, 15),
     (anon_sym_SEMI, 310), (anon_sym_PERCENT, 312), (aux_sym_input_decls_token1, 314),
     (aux_sym_output_decls_token1, 316), (aux_sym_in_out_decls_token1, 318),
     (aux_sym_var_decls_token1, 320), (aux_sym_temp_var_decls_token1, 322),
     (aux_sym_external_var_decls_token1, 324), (aux_sym_global_var_decls_token1, 326),
     (aux_sym_fb_decl_token4, 1184), (aux_sym_method_decl_token1, 330),
     (aux_sym_prog_access_decls_token1, 332), (aux_sym_initial_step_token1, 334),
     (aux_sym_config_init_token1, 336), (aux_sym__stmt_token1, 340), (aux_sym__stmt_token2, 340),
     (aux_sym__stmt_token3, 340), (aux_sym_if_stmt_token1, 342), (aux_sym_case_stmt_token1, 344),
     (aux_sym_for_stmt_token1, 346), (aux_sym_while_stmt_token1, 348),
     (aux_sym_repeat_stmt_token1, 350), (aux_sym_raise_stmt_token1, 352),
     (aux_sym_try_stmt_token1, 354), (aux_sym_try_stmt_token2, 356),
     (aux_sym_catch_clause_token1, 356), (aux_sym_finally_clause_token1, 356), (sym_ld_rung, 358),
     (sym_fbd_network, 360), (sym_c_style_comment, 3), (sym_pascal_style_comment, 3),
     (sym_pragma, 3)]"

lemma ts_parse_row_427_scan: "row_scan tokens_63_2 0 ts_parse_row_427 = Some (Suc (Suc (Suc (Suc 0))))"
  unfolding ts_parse_row_427_def by simp

text \<open>Lines 103573 to 103685.\<close>

definition ts_parse_row_428 :: parse_row where
  "ts_parse_row_428 =
    [(sym_ERR_assign_func_call, 7530), (sym_ERR_unexpected_this_in_path, 2372),
     (sym_ERR_unexpected_super_in_path, 2372), (sym_ERR_fb_variables_after_method, 1447),
     (sym_ERR_var_access_not_allowed, 3160), (sym_ERR_var_config_not_allowed, 3160),
     (sym_ERR_var_global_not_allowed, 3160), (sym_ERR_method_decl_in_body, 3150),
     (sym_extern_pragma, 7490), (sym_wasm_pragma, 3150), (sym_warn_pragma, 7490),
     (sym_allow_pragma, 3140), (sym_test_pragma, 7490), (sym_once_pragma, 7490),
     (sym_must_call_pragma, 7490), (sym_export_pragma, 7490), (sym_pou_pragma, 7194),
     (sym_direct_variable, 7675), (sym_deref_expression, 2373), (sym_variable, 7599),
     (sym_var_access, 2373), (sym_in_out_decls, 3160), (sym_var_decls, 3160),
     (sym_retain_var_decls, 3160), (sym_temp_var_decls, 3160), (sym_external_var_decls, 3160),
     (sym_global_var_decls, 2947), (sym_loc_partly_var_decl, 3160), (sym__fb_variables, 2347),
     (sym_fb_input_decls, 3160), (sym_fb_output_decls, 3160), (sym_no_retain_var_decls, 3160),
     (sym_fb_body, 9781), (sym_method_decl, 444), (sym_prog_access_decls, 3043), (sym_SFC, 7970),
     (sym_SFC_network, 7612), (sym_initial_step, 7439), (sym_config_init, 3047),
     (sym_variable_access, 7530), (sym_func_call, 2961), (sym_stmt_list, 7970), (sym__stmt, 2024),
     (sym_assign, 3150), (sym_if_stmt, 3150), (sym_case_stmt, 3150), (sym_for_stmt, 3150),
     (sym_while_stmt, 3150), (sym_repeat_stmt, 3150), (sym_raise_stmt, 3150), (sym_try_stmt, 3150),
     (sym_ERR_clause_outside_try, 3150), (sym_begin_path_expression, 2943), (sym_invocation, 2934),
     (sym_any_invocation, 2935), (sym_this_invocation, 2641), (sym_super_invocation, 2641),
     (sym_super_body_invocation, 2935), (sym_path_expression, 2627), (sym_field_expression, 2373),
     (sym_index_expression, 2373), (sym_ladder_diagram, 7970), (sym_fb_diagram, 7970),
     (aux_sym_ERR_fb_variables_after_method_repeat1, 2347), (aux_sym_func_decl_repeat1, 7194),
     (aux_sym_fb_decl_repeat3, 444), (aux_sym_SFC_repeat1, 7612), (aux_sym_stmt_list_repeat1, 2024),
     (aux_sym_ladder_diagram_repeat1, 8009), (aux_sym_fb_diagram_repeat1, 8013),
     (sym_identifier, 298), (aux_sym_ERR_unexpected_this_in_path_token1, 304),
     (aux_sym_ERR_unexpected_super_in_path_token1, 306), (sym_line_comment, 3),
     (anon_sym_LBRACE, 308), (aux_sym_test_pragma_token1, 9), (aux_sym_once_pragma_token1, 11),
     (aux_sym_must_call_pragma_token1, 13), (aux_sym_export_pragma_token1, 15),
     (anon_sym_SEMI, 310), (anon_sym_PERCENT, 312), (aux_sym_input_decls_token1, 314),
     (aux_sym_output_decls_token1, 316), (aux_sym_in_out_decls_token1, 318),
     (aux_sym_var_decls_token1, 320), (aux_sym_temp_var_decls_token1, 322),
     (aux_sym_external_var_decls_token1, 324), (aux_sym_global_var_decls_token1, 326),
     (aux_sym_fb_decl_token4, 1186), (aux_sym_method_decl_token1, 330),
     (aux_sym_prog_access_decls_token1, 332), (aux_sym_initial_step_token1, 334),
     (aux_sym_config_init_token1, 336), (aux_sym__stmt_token1, 340), (aux_sym__stmt_token2, 340),
     (aux_sym__stmt_token3, 340), (aux_sym_if_stmt_token1, 342), (aux_sym_case_stmt_token1, 344),
     (aux_sym_for_stmt_token1, 346), (aux_sym_while_stmt_token1, 348),
     (aux_sym_repeat_stmt_token1, 350), (aux_sym_raise_stmt_token1, 352),
     (aux_sym_try_stmt_token1, 354), (aux_sym_try_stmt_token2, 356),
     (aux_sym_catch_clause_token1, 356), (aux_sym_finally_clause_token1, 356), (sym_ld_rung, 358),
     (sym_fbd_network, 360), (sym_c_style_comment, 3), (sym_pascal_style_comment, 3),
     (sym_pragma, 3)]"

lemma ts_parse_row_428_scan: "row_scan tokens_63_2 0 ts_parse_row_428 = Some (Suc (Suc (Suc (Suc 0))))"
  unfolding ts_parse_row_428_def by simp

text \<open>Lines 103686 to 103798.\<close>

definition ts_parse_row_429 :: parse_row where
  "ts_parse_row_429 =
    [(sym_ERR_assign_func_call, 7530), (sym_ERR_unexpected_this_in_path, 2372),
     (sym_ERR_unexpected_super_in_path, 2372), (sym_ERR_fb_variables_after_method, 1972),
     (sym_ERR_var_access_not_allowed, 3160), (sym_ERR_var_config_not_allowed, 3160),
     (sym_ERR_var_global_not_allowed, 3160), (sym_ERR_method_decl_in_body, 3150),
     (sym_extern_pragma, 7490), (sym_wasm_pragma, 3150), (sym_warn_pragma, 7490),
     (sym_allow_pragma, 3140), (sym_test_pragma, 7490), (sym_once_pragma, 7490),
     (sym_must_call_pragma, 7490), (sym_export_pragma, 7490), (sym_pou_pragma, 7194),
     (sym_direct_variable, 7675), (sym_deref_expression, 2373), (sym_variable, 7599),
     (sym_var_access, 2373), (sym_in_out_decls, 3160), (sym_var_decls, 3160),
     (sym_retain_var_decls, 3160), (sym_temp_var_decls, 3160), (sym_external_var_decls, 3160),
     (sym_global_var_decls, 2947), (sym_loc_partly_var_decl, 3160), (sym__fb_variables, 2343),
     (sym_fb_input_decls, 3160), (sym_fb_output_decls, 3160), (sym_no_retain_var_decls, 3160),
     (sym_fb_body, 9282), (sym_method_decl, 2549), (sym_prog_access_decls, 3043), (sym_SFC, 7970),
     (sym_SFC_network, 7612), (sym_initial_step, 7439), (sym_config_init, 3047),
     (sym_variable_access, 7530), (sym_func_call, 2961), (sym_stmt_list, 7970), (sym__stmt, 2024),
     (sym_assign, 3150), (sym_if_stmt, 3150), (sym_case_stmt, 3150), (sym_for_stmt, 3150),
     (sym_while_stmt, 3150), (sym_repeat_stmt, 3150), (sym_raise_stmt, 3150), (sym_try_stmt, 3150),
     (sym_ERR_clause_outside_try, 3150), (sym_begin_path_expression, 2943), (sym_invocation, 2934),
     (sym_any_invocation, 2935), (sym_this_invocation, 2641), (sym_super_invocation, 2641),
     (sym_super_body_invocation, 2935), (sym_path_expression, 2627), (sym_field_expression, 2373),
     (sym_index_expression, 2373), (sym_ladder_diagram, 7970), (sym_fb_diagram, 7970),
     (aux_sym_ERR_fb_variables_after_method_repeat1, 2343), (aux_sym_func_decl_repeat1, 7194),
     (aux_sym_fb_decl_repeat3, 2549), (aux_sym_SFC_repeat1, 7612),
     (aux_sym_stmt_list_repeat1, 2024), (aux_sym_ladder_diagram_repeat1, 8009),
     (aux_sym_fb_diagram_repeat1, 8013), (sym_identifier, 298),
     (aux_sym_ERR_unexpected_this_in_path_token1, 304),
     (aux_sym_ERR_unexpected_super_in_path_token1, 306), (sym_line_comment, 3),
     (anon_sym_LBRACE, 308), (aux_sym_test_pragma_token1, 9), (aux_sym_once_pragma_token1, 11),
     (aux_sym_must_call_pragma_token1, 13), (aux_sym_export_pragma_token1, 15),
     (anon_sym_SEMI, 310), (anon_sym_PERCENT, 312), (aux_sym_input_decls_token1, 314),
     (aux_sym_output_decls_token1, 316), (aux_sym_in_out_decls_token1, 318),
     (aux_sym_var_decls_token1, 320), (aux_sym_temp_var_decls_token1, 322),
     (aux_sym_external_var_decls_token1, 324), (aux_sym_global_var_decls_token1, 326),
     (aux_sym_fb_decl_token4, 1188), (aux_sym_method_decl_token1, 330),
     (aux_sym_prog_access_decls_token1, 332), (aux_sym_initial_step_token1, 334),
     (aux_sym_config_init_token1, 336), (aux_sym__stmt_token1, 340), (aux_sym__stmt_token2, 340),
     (aux_sym__stmt_token3, 340), (aux_sym_if_stmt_token1, 342), (aux_sym_case_stmt_token1, 344),
     (aux_sym_for_stmt_token1, 346), (aux_sym_while_stmt_token1, 348),
     (aux_sym_repeat_stmt_token1, 350), (aux_sym_raise_stmt_token1, 352),
     (aux_sym_try_stmt_token1, 354), (aux_sym_try_stmt_token2, 356),
     (aux_sym_catch_clause_token1, 356), (aux_sym_finally_clause_token1, 356), (sym_ld_rung, 358),
     (sym_fbd_network, 360), (sym_c_style_comment, 3), (sym_pascal_style_comment, 3),
     (sym_pragma, 3)]"

lemma ts_parse_row_429_scan: "row_scan tokens_63_2 0 ts_parse_row_429 = Some (Suc (Suc (Suc (Suc 0))))"
  unfolding ts_parse_row_429_def by simp

text \<open>Lines 103799 to 103911.\<close>

definition ts_parse_row_430 :: parse_row where
  "ts_parse_row_430 =
    [(sym_ERR_assign_func_call, 7530), (sym_ERR_unexpected_this_in_path, 2372),
     (sym_ERR_unexpected_super_in_path, 2372), (sym_ERR_fb_variables_after_method, 1322),
     (sym_ERR_var_access_not_allowed, 3160), (sym_ERR_var_config_not_allowed, 3160),
     (sym_ERR_var_global_not_allowed, 3160), (sym_ERR_method_decl_in_body, 3150),
     (sym_extern_pragma, 7490), (sym_wasm_pragma, 3150), (sym_warn_pragma, 7490),
     (sym_allow_pragma, 3140), (sym_test_pragma, 7490), (sym_once_pragma, 7490),
     (sym_must_call_pragma, 7490), (sym_export_pragma, 7490), (sym_pou_pragma, 7194),
     (sym_direct_variable, 7675), (sym_deref_expression, 2373), (sym_variable, 7599),
     (sym_var_access, 2373), (sym_in_out_decls, 3160), (sym_var_decls, 3160),
     (sym_retain_var_decls, 3160), (sym_temp_var_decls, 3160), (sym_external_var_decls, 3160),
     (sym_global_var_decls, 2947), (sym_loc_partly_var_decl, 3160), (sym__fb_variables, 2343),
     (sym_fb_input_decls, 3160), (sym_fb_output_decls, 3160), (sym_no_retain_var_decls, 3160),
     (sym_fb_body, 9975), (sym_method_decl, 2549), (sym_prog_access_decls, 3043), (sym_SFC, 7970),
     (sym_SFC_network, 7612), (sym_initial_step, 7439), (sym_config_init, 3047),
     (sym_variable_access, 7530), (sym_func_call, 2961), (sym_stmt_list, 7970), (sym__stmt, 2024),
     (sym_assign, 3150), (sym_if_stmt, 3150), (sym_case_stmt, 3150), (sym_for_stmt, 3150),
     (sym_while_stmt, 3150), (sym_repeat_stmt, 3150), (sym_raise_stmt, 3150), (sym_try_stmt, 3150),
     (sym_ERR_clause_outside_try, 3150), (sym_begin_path_expression, 2943), (sym_invocation, 2934),
     (sym_any_invocation, 2935), (sym_this_invocation, 2641), (sym_super_invocation, 2641),
     (sym_super_body_invocation, 2935), (sym_path_expression, 2627), (sym_field_expression, 2373),
     (sym_index_expression, 2373), (sym_ladder_diagram, 7970), (sym_fb_diagram, 7970),
     (aux_sym_ERR_fb_variables_after_method_repeat1, 2343), (aux_sym_func_decl_repeat1, 7194),
     (aux_sym_fb_decl_repeat3, 2549), (aux_sym_SFC_repeat1, 7612),
     (aux_sym_stmt_list_repeat1, 2024), (aux_sym_ladder_diagram_repeat1, 8009),
     (aux_sym_fb_diagram_repeat1, 8013), (sym_identifier, 298),
     (aux_sym_ERR_unexpected_this_in_path_token1, 304),
     (aux_sym_ERR_unexpected_super_in_path_token1, 306), (sym_line_comment, 3),
     (anon_sym_LBRACE, 308), (aux_sym_test_pragma_token1, 9), (aux_sym_once_pragma_token1, 11),
     (aux_sym_must_call_pragma_token1, 13), (aux_sym_export_pragma_token1, 15),
     (anon_sym_SEMI, 310), (anon_sym_PERCENT, 312), (aux_sym_input_decls_token1, 314),
     (aux_sym_output_decls_token1, 316), (aux_sym_in_out_decls_token1, 318),
     (aux_sym_var_decls_token1, 320), (aux_sym_temp_var_decls_token1, 322),
     (aux_sym_external_var_decls_token1, 324), (aux_sym_global_var_decls_token1, 326),
     (aux_sym_fb_decl_token4, 1190), (aux_sym_method_decl_token1, 330),
     (aux_sym_prog_access_decls_token1, 332), (aux_sym_initial_step_token1, 334),
     (aux_sym_config_init_token1, 336), (aux_sym__stmt_token1, 340), (aux_sym__stmt_token2, 340),
     (aux_sym__stmt_token3, 340), (aux_sym_if_stmt_token1, 342), (aux_sym_case_stmt_token1, 344),
     (aux_sym_for_stmt_token1, 346), (aux_sym_while_stmt_token1, 348),
     (aux_sym_repeat_stmt_token1, 350), (aux_sym_raise_stmt_token1, 352),
     (aux_sym_try_stmt_token1, 354), (aux_sym_try_stmt_token2, 356),
     (aux_sym_catch_clause_token1, 356), (aux_sym_finally_clause_token1, 356), (sym_ld_rung, 358),
     (sym_fbd_network, 360), (sym_c_style_comment, 3), (sym_pascal_style_comment, 3),
     (sym_pragma, 3)]"

lemma ts_parse_row_430_scan: "row_scan tokens_63_2 0 ts_parse_row_430 = Some (Suc (Suc (Suc (Suc 0))))"
  unfolding ts_parse_row_430_def by simp

text \<open>Lines 103912 to 104024.\<close>

definition ts_parse_row_431 :: parse_row where
  "ts_parse_row_431 =
    [(sym_ERR_assign_func_call, 7530), (sym_ERR_unexpected_this_in_path, 2372),
     (sym_ERR_unexpected_super_in_path, 2372), (sym_ERR_fb_variables_after_method, 1323),
     (sym_ERR_var_access_not_allowed, 3160), (sym_ERR_var_config_not_allowed, 3160),
     (sym_ERR_var_global_not_allowed, 3160), (sym_ERR_method_decl_in_body, 3150),
     (sym_extern_pragma, 7490), (sym_wasm_pragma, 3150), (sym_warn_pragma, 7490),
     (sym_allow_pragma, 3140), (sym_test_pragma, 7490), (sym_once_pragma, 7490),
     (sym_must_call_pragma, 7490), (sym_export_pragma, 7490), (sym_pou_pragma, 7194),
     (sym_direct_variable, 7675), (sym_deref_expression, 2373), (sym_variable, 7599),
     (sym_var_access, 2373), (sym_in_out_decls, 3160), (sym_var_decls, 3160),
     (sym_retain_var_decls, 3160), (sym_temp_var_decls, 3160), (sym_external_var_decls, 3160),
     (sym_global_var_decls, 2947), (sym_loc_partly_var_decl, 3160), (sym__fb_variables, 2343),
     (sym_fb_input_decls, 3160), (sym_fb_output_decls, 3160), (sym_no_retain_var_decls, 3160),
     (sym_fb_body, 9994), (sym_method_decl, 2549), (sym_prog_access_decls, 3043), (sym_SFC, 7970),
     (sym_SFC_network, 7612), (sym_initial_step, 7439), (sym_config_init, 3047),
     (sym_variable_access, 7530), (sym_func_call, 2961), (sym_stmt_list, 7970), (sym__stmt, 2024),
     (sym_assign, 3150), (sym_if_stmt, 3150), (sym_case_stmt, 3150), (sym_for_stmt, 3150),
     (sym_while_stmt, 3150), (sym_repeat_stmt, 3150), (sym_raise_stmt, 3150), (sym_try_stmt, 3150),
     (sym_ERR_clause_outside_try, 3150), (sym_begin_path_expression, 2943), (sym_invocation, 2934),
     (sym_any_invocation, 2935), (sym_this_invocation, 2641), (sym_super_invocation, 2641),
     (sym_super_body_invocation, 2935), (sym_path_expression, 2627), (sym_field_expression, 2373),
     (sym_index_expression, 2373), (sym_ladder_diagram, 7970), (sym_fb_diagram, 7970),
     (aux_sym_ERR_fb_variables_after_method_repeat1, 2343), (aux_sym_func_decl_repeat1, 7194),
     (aux_sym_fb_decl_repeat3, 2549), (aux_sym_SFC_repeat1, 7612),
     (aux_sym_stmt_list_repeat1, 2024), (aux_sym_ladder_diagram_repeat1, 8009),
     (aux_sym_fb_diagram_repeat1, 8013), (sym_identifier, 298),
     (aux_sym_ERR_unexpected_this_in_path_token1, 304),
     (aux_sym_ERR_unexpected_super_in_path_token1, 306), (sym_line_comment, 3),
     (anon_sym_LBRACE, 308), (aux_sym_test_pragma_token1, 9), (aux_sym_once_pragma_token1, 11),
     (aux_sym_must_call_pragma_token1, 13), (aux_sym_export_pragma_token1, 15),
     (anon_sym_SEMI, 310), (anon_sym_PERCENT, 312), (aux_sym_input_decls_token1, 314),
     (aux_sym_output_decls_token1, 316), (aux_sym_in_out_decls_token1, 318),
     (aux_sym_var_decls_token1, 320), (aux_sym_temp_var_decls_token1, 322),
     (aux_sym_external_var_decls_token1, 324), (aux_sym_global_var_decls_token1, 326),
     (aux_sym_fb_decl_token4, 1192), (aux_sym_method_decl_token1, 330),
     (aux_sym_prog_access_decls_token1, 332), (aux_sym_initial_step_token1, 334),
     (aux_sym_config_init_token1, 336), (aux_sym__stmt_token1, 340), (aux_sym__stmt_token2, 340),
     (aux_sym__stmt_token3, 340), (aux_sym_if_stmt_token1, 342), (aux_sym_case_stmt_token1, 344),
     (aux_sym_for_stmt_token1, 346), (aux_sym_while_stmt_token1, 348),
     (aux_sym_repeat_stmt_token1, 350), (aux_sym_raise_stmt_token1, 352),
     (aux_sym_try_stmt_token1, 354), (aux_sym_try_stmt_token2, 356),
     (aux_sym_catch_clause_token1, 356), (aux_sym_finally_clause_token1, 356), (sym_ld_rung, 358),
     (sym_fbd_network, 360), (sym_c_style_comment, 3), (sym_pascal_style_comment, 3),
     (sym_pragma, 3)]"

lemma ts_parse_row_431_scan: "row_scan tokens_63_2 0 ts_parse_row_431 = Some (Suc (Suc (Suc (Suc 0))))"
  unfolding ts_parse_row_431_def by simp

text \<open>Lines 104025 to 104137.\<close>

definition ts_parse_row_432 :: parse_row where
  "ts_parse_row_432 =
    [(sym_ERR_assign_func_call, 7530), (sym_ERR_unexpected_this_in_path, 2372),
     (sym_ERR_unexpected_super_in_path, 2372), (sym_ERR_fb_variables_after_method, 1659),
     (sym_ERR_var_access_not_allowed, 3160), (sym_ERR_var_config_not_allowed, 3160),
     (sym_ERR_var_global_not_allowed, 3160), (sym_ERR_method_decl_in_body, 3150),
     (sym_extern_pragma, 7490), (sym_wasm_pragma, 3150), (sym_warn_pragma, 7490),
     (sym_allow_pragma, 3140), (sym_test_pragma, 7490), (sym_once_pragma, 7490),
     (sym_must_call_pragma, 7490), (sym_export_pragma, 7490), (sym_pou_pragma, 7194),
     (sym_direct_variable, 7675), (sym_deref_expression, 2373), (sym_variable, 7599),
     (sym_var_access, 2373), (sym_in_out_decls, 3160), (sym_var_decls, 3160),
     (sym_retain_var_decls, 3160), (sym_temp_var_decls, 3160), (sym_external_var_decls, 3160),
     (sym_global_var_decls, 2947), (sym_loc_partly_var_decl, 3160), (sym__fb_variables, 2343),
     (sym_fb_input_decls, 3160), (sym_fb_output_decls, 3160), (sym_no_retain_var_decls, 3160),
     (sym_fb_body, 8424), (sym_method_decl, 2549), (sym_prog_access_decls, 3043), (sym_SFC, 7970),
     (sym_SFC_network, 7612), (sym_initial_step, 7439), (sym_config_init, 3047),
     (sym_variable_access, 7530), (sym_func_call, 2961), (sym_stmt_list, 7970), (sym__stmt, 2024),
     (sym_assign, 3150), (sym_if_stmt, 3150), (sym_case_stmt, 3150), (sym_for_stmt, 3150),
     (sym_while_stmt, 3150), (sym_repeat_stmt, 3150), (sym_raise_stmt, 3150), (sym_try_stmt, 3150),
     (sym_ERR_clause_outside_try, 3150), (sym_begin_path_expression, 2943), (sym_invocation, 2934),
     (sym_any_invocation, 2935), (sym_this_invocation, 2641), (sym_super_invocation, 2641),
     (sym_super_body_invocation, 2935), (sym_path_expression, 2627), (sym_field_expression, 2373),
     (sym_index_expression, 2373), (sym_ladder_diagram, 7970), (sym_fb_diagram, 7970),
     (aux_sym_ERR_fb_variables_after_method_repeat1, 2343), (aux_sym_func_decl_repeat1, 7194),
     (aux_sym_fb_decl_repeat3, 2549), (aux_sym_SFC_repeat1, 7612),
     (aux_sym_stmt_list_repeat1, 2024), (aux_sym_ladder_diagram_repeat1, 8009),
     (aux_sym_fb_diagram_repeat1, 8013), (sym_identifier, 298),
     (aux_sym_ERR_unexpected_this_in_path_token1, 304),
     (aux_sym_ERR_unexpected_super_in_path_token1, 306), (sym_line_comment, 3),
     (anon_sym_LBRACE, 308), (aux_sym_test_pragma_token1, 9), (aux_sym_once_pragma_token1, 11),
     (aux_sym_must_call_pragma_token1, 13), (aux_sym_export_pragma_token1, 15),
     (anon_sym_SEMI, 310), (anon_sym_PERCENT, 312), (aux_sym_input_decls_token1, 314),
     (aux_sym_output_decls_token1, 316), (aux_sym_in_out_decls_token1, 318),
     (aux_sym_var_decls_token1, 320), (aux_sym_temp_var_decls_token1, 322),
     (aux_sym_external_var_decls_token1, 324), (aux_sym_global_var_decls_token1, 326),
     (aux_sym_fb_decl_token4, 1194), (aux_sym_method_decl_token1, 330),
     (aux_sym_prog_access_decls_token1, 332), (aux_sym_initial_step_token1, 334),
     (aux_sym_config_init_token1, 336), (aux_sym__stmt_token1, 340), (aux_sym__stmt_token2, 340),
     (aux_sym__stmt_token3, 340), (aux_sym_if_stmt_token1, 342), (aux_sym_case_stmt_token1, 344),
     (aux_sym_for_stmt_token1, 346), (aux_sym_while_stmt_token1, 348),
     (aux_sym_repeat_stmt_token1, 350), (aux_sym_raise_stmt_token1, 352),
     (aux_sym_try_stmt_token1, 354), (aux_sym_try_stmt_token2, 356),
     (aux_sym_catch_clause_token1, 356), (aux_sym_finally_clause_token1, 356), (sym_ld_rung, 358),
     (sym_fbd_network, 360), (sym_c_style_comment, 3), (sym_pascal_style_comment, 3),
     (sym_pragma, 3)]"

lemma ts_parse_row_432_scan: "row_scan tokens_63_2 0 ts_parse_row_432 = Some (Suc (Suc (Suc (Suc 0))))"
  unfolding ts_parse_row_432_def by simp

text \<open>Lines 104138 to 104250.\<close>

definition ts_parse_row_433 :: parse_row where
  "ts_parse_row_433 =
    [(sym_ERR_assign_func_call, 7530), (sym_ERR_unexpected_this_in_path, 2372),
     (sym_ERR_unexpected_super_in_path, 2372), (sym_ERR_fb_variables_after_method, 1328),
     (sym_ERR_var_access_not_allowed, 3160), (sym_ERR_var_config_not_allowed, 3160),
     (sym_ERR_var_global_not_allowed, 3160), (sym_ERR_method_decl_in_body, 3150),
     (sym_extern_pragma, 7490), (sym_wasm_pragma, 3150), (sym_warn_pragma, 7490),
     (sym_allow_pragma, 3140), (sym_test_pragma, 7490), (sym_once_pragma, 7490),
     (sym_must_call_pragma, 7490), (sym_export_pragma, 7490), (sym_pou_pragma, 7194),
     (sym_direct_variable, 7675), (sym_deref_expression, 2373), (sym_variable, 7599),
     (sym_var_access, 2373), (sym_in_out_decls, 3160), (sym_var_decls, 3160),
     (sym_retain_var_decls, 3160), (sym_temp_var_decls, 3160), (sym_external_var_decls, 3160),
     (sym_global_var_decls, 2947), (sym_loc_partly_var_decl, 3160), (sym__fb_variables, 2343),
     (sym_fb_input_decls, 3160), (sym_fb_output_decls, 3160), (sym_no_retain_var_decls, 3160),
     (sym_fb_body, 10080), (sym_method_decl, 2549), (sym_prog_access_decls, 3043), (sym_SFC, 7970),
     (sym_SFC_network, 7612), (sym_initial_step, 7439), (sym_config_init, 3047),
     (sym_variable_access, 7530), (sym_func_call, 2961), (sym_stmt_list, 7970), (sym__stmt, 2024),
     (sym_assign, 3150), (sym_if_stmt, 3150), (sym_case_stmt, 3150), (sym_for_stmt, 3150),
     (sym_while_stmt, 3150), (sym_repeat_stmt, 3150), (sym_raise_stmt, 3150), (sym_try_stmt, 3150),
     (sym_ERR_clause_outside_try, 3150), (sym_begin_path_expression, 2943), (sym_invocation, 2934),
     (sym_any_invocation, 2935), (sym_this_invocation, 2641), (sym_super_invocation, 2641),
     (sym_super_body_invocation, 2935), (sym_path_expression, 2627), (sym_field_expression, 2373),
     (sym_index_expression, 2373), (sym_ladder_diagram, 7970), (sym_fb_diagram, 7970),
     (aux_sym_ERR_fb_variables_after_method_repeat1, 2343), (aux_sym_func_decl_repeat1, 7194),
     (aux_sym_fb_decl_repeat3, 2549), (aux_sym_SFC_repeat1, 7612),
     (aux_sym_stmt_list_repeat1, 2024), (aux_sym_ladder_diagram_repeat1, 8009),
     (aux_sym_fb_diagram_repeat1, 8013), (sym_identifier, 298),
     (aux_sym_ERR_unexpected_this_in_path_token1, 304),
     (aux_sym_ERR_unexpected_super_in_path_token1, 306), (sym_line_comment, 3),
     (anon_sym_LBRACE, 308), (aux_sym_test_pragma_token1, 9), (aux_sym_once_pragma_token1, 11),
     (aux_sym_must_call_pragma_token1, 13), (aux_sym_export_pragma_token1, 15),
     (anon_sym_SEMI, 310), (anon_sym_PERCENT, 312), (aux_sym_input_decls_token1, 314),
     (aux_sym_output_decls_token1, 316), (aux_sym_in_out_decls_token1, 318),
     (aux_sym_var_decls_token1, 320), (aux_sym_temp_var_decls_token1, 322),
     (aux_sym_external_var_decls_token1, 324), (aux_sym_global_var_decls_token1, 326),
     (aux_sym_fb_decl_token4, 1196), (aux_sym_method_decl_token1, 330),
     (aux_sym_prog_access_decls_token1, 332), (aux_sym_initial_step_token1, 334),
     (aux_sym_config_init_token1, 336), (aux_sym__stmt_token1, 340), (aux_sym__stmt_token2, 340),
     (aux_sym__stmt_token3, 340), (aux_sym_if_stmt_token1, 342), (aux_sym_case_stmt_token1, 344),
     (aux_sym_for_stmt_token1, 346), (aux_sym_while_stmt_token1, 348),
     (aux_sym_repeat_stmt_token1, 350), (aux_sym_raise_stmt_token1, 352),
     (aux_sym_try_stmt_token1, 354), (aux_sym_try_stmt_token2, 356),
     (aux_sym_catch_clause_token1, 356), (aux_sym_finally_clause_token1, 356), (sym_ld_rung, 358),
     (sym_fbd_network, 360), (sym_c_style_comment, 3), (sym_pascal_style_comment, 3),
     (sym_pragma, 3)]"

lemma ts_parse_row_433_scan: "row_scan tokens_63_2 0 ts_parse_row_433 = Some (Suc (Suc (Suc (Suc 0))))"
  unfolding ts_parse_row_433_def by simp

text \<open>Lines 104251 to 104363.\<close>

definition ts_parse_row_434 :: parse_row where
  "ts_parse_row_434 =
    [(sym_ERR_assign_func_call, 7530), (sym_ERR_unexpected_this_in_path, 2372),
     (sym_ERR_unexpected_super_in_path, 2372), (sym_ERR_fb_variables_after_method, 1329),
     (sym_ERR_var_access_not_allowed, 3160), (sym_ERR_var_config_not_allowed, 3160),
     (sym_ERR_var_global_not_allowed, 3160), (sym_ERR_method_decl_in_body, 3150),
     (sym_extern_pragma, 7490), (sym_wasm_pragma, 3150), (sym_warn_pragma, 7490),
     (sym_allow_pragma, 3140), (sym_test_pragma, 7490), (sym_once_pragma, 7490),
     (sym_must_call_pragma, 7490), (sym_export_pragma, 7490), (sym_pou_pragma, 7194),
     (sym_direct_variable, 7675), (sym_deref_expression, 2373), (sym_variable, 7599),
     (sym_var_access, 2373), (sym_in_out_decls, 3160), (sym_var_decls, 3160),
     (sym_retain_var_decls, 3160), (sym_temp_var_decls, 3160), (sym_external_var_decls, 3160),
     (sym_global_var_decls, 2947), (sym_loc_partly_var_decl, 3160), (sym__fb_variables, 2347),
     (sym_fb_input_decls, 3160), (sym_fb_output_decls, 3160), (sym_no_retain_var_decls, 3160),
     (sym_fb_body, 10107), (sym_method_decl, 580), (sym_prog_access_decls, 3043), (sym_SFC, 7970),
     (sym_SFC_network, 7612), (sym_initial_step, 7439), (sym_config_init, 3047),
     (sym_variable_access, 7530), (sym_func_call, 2961), (sym_stmt_list, 7970), (sym__stmt, 2024),
     (sym_assign, 3150), (sym_if_stmt, 3150), (sym_case_stmt, 3150), (sym_for_stmt, 3150),
     (sym_while_stmt, 3150), (sym_repeat_stmt, 3150), (sym_raise_stmt, 3150), (sym_try_stmt, 3150),
     (sym_ERR_clause_outside_try, 3150), (sym_begin_path_expression, 2943), (sym_invocation, 2934),
     (sym_any_invocation, 2935), (sym_this_invocation, 2641), (sym_super_invocation, 2641),
     (sym_super_body_invocation, 2935), (sym_path_expression, 2627), (sym_field_expression, 2373),
     (sym_index_expression, 2373), (sym_ladder_diagram, 7970), (sym_fb_diagram, 7970),
     (aux_sym_ERR_fb_variables_after_method_repeat1, 2347), (aux_sym_func_decl_repeat1, 7194),
     (aux_sym_fb_decl_repeat3, 580), (aux_sym_SFC_repeat1, 7612), (aux_sym_stmt_list_repeat1, 2024),
     (aux_sym_ladder_diagram_repeat1, 8009), (aux_sym_fb_diagram_repeat1, 8013),
     (sym_identifier, 298), (aux_sym_ERR_unexpected_this_in_path_token1, 304),
     (aux_sym_ERR_unexpected_super_in_path_token1, 306), (sym_line_comment, 3),
     (anon_sym_LBRACE, 308), (aux_sym_test_pragma_token1, 9), (aux_sym_once_pragma_token1, 11),
     (aux_sym_must_call_pragma_token1, 13), (aux_sym_export_pragma_token1, 15),
     (anon_sym_SEMI, 310), (anon_sym_PERCENT, 312), (aux_sym_input_decls_token1, 314),
     (aux_sym_output_decls_token1, 316), (aux_sym_in_out_decls_token1, 318),
     (aux_sym_var_decls_token1, 320), (aux_sym_temp_var_decls_token1, 322),
     (aux_sym_external_var_decls_token1, 324), (aux_sym_global_var_decls_token1, 326),
     (aux_sym_fb_decl_token4, 1198), (aux_sym_method_decl_token1, 330),
     (aux_sym_prog_access_decls_token1, 332), (aux_sym_initial_step_token1, 334),
     (aux_sym_config_init_token1, 336), (aux_sym__stmt_token1, 340), (aux_sym__stmt_token2, 340),
     (aux_sym__stmt_token3, 340), (aux_sym_if_stmt_token1, 342), (aux_sym_case_stmt_token1, 344),
     (aux_sym_for_stmt_token1, 346), (aux_sym_while_stmt_token1, 348),
     (aux_sym_repeat_stmt_token1, 350), (aux_sym_raise_stmt_token1, 352),
     (aux_sym_try_stmt_token1, 354), (aux_sym_try_stmt_token2, 356),
     (aux_sym_catch_clause_token1, 356), (aux_sym_finally_clause_token1, 356), (sym_ld_rung, 358),
     (sym_fbd_network, 360), (sym_c_style_comment, 3), (sym_pascal_style_comment, 3),
     (sym_pragma, 3)]"

lemma ts_parse_row_434_scan: "row_scan tokens_63_2 0 ts_parse_row_434 = Some (Suc (Suc (Suc (Suc 0))))"
  unfolding ts_parse_row_434_def by simp

text \<open>Lines 104364 to 104476.\<close>

definition ts_parse_row_435 :: parse_row where
  "ts_parse_row_435 =
    [(sym_ERR_assign_func_call, 7530), (sym_ERR_unexpected_this_in_path, 2372),
     (sym_ERR_unexpected_super_in_path, 2372), (sym_ERR_fb_variables_after_method, 1330),
     (sym_ERR_var_access_not_allowed, 3160), (sym_ERR_var_config_not_allowed, 3160),
     (sym_ERR_var_global_not_allowed, 3160), (sym_ERR_method_decl_in_body, 3150),
     (sym_extern_pragma, 7490), (sym_wasm_pragma, 3150), (sym_warn_pragma, 7490),
     (sym_allow_pragma, 3140), (sym_test_pragma, 7490), (sym_once_pragma, 7490),
     (sym_must_call_pragma, 7490), (sym_export_pragma, 7490), (sym_pou_pragma, 7194),
     (sym_direct_variable, 7675), (sym_deref_expression, 2373), (sym_variable, 7599),
     (sym_var_access, 2373), (sym_in_out_decls, 3160), (sym_var_decls, 3160),
     (sym_retain_var_decls, 3160), (sym_temp_var_decls, 3160), (sym_external_var_decls, 3160),
     (sym_global_var_decls, 2947), (sym_loc_partly_var_decl, 3160), (sym__fb_variables, 2343),
     (sym_fb_input_decls, 3160), (sym_fb_output_decls, 3160), (sym_no_retain_var_decls, 3160),
     (sym_fb_body, 10114), (sym_method_decl, 2549), (sym_prog_access_decls, 3043), (sym_SFC, 7970),
     (sym_SFC_network, 7612), (sym_initial_step, 7439), (sym_config_init, 3047),
     (sym_variable_access, 7530), (sym_func_call, 2961), (sym_stmt_list, 7970), (sym__stmt, 2024),
     (sym_assign, 3150), (sym_if_stmt, 3150), (sym_case_stmt, 3150), (sym_for_stmt, 3150),
     (sym_while_stmt, 3150), (sym_repeat_stmt, 3150), (sym_raise_stmt, 3150), (sym_try_stmt, 3150),
     (sym_ERR_clause_outside_try, 3150), (sym_begin_path_expression, 2943), (sym_invocation, 2934),
     (sym_any_invocation, 2935), (sym_this_invocation, 2641), (sym_super_invocation, 2641),
     (sym_super_body_invocation, 2935), (sym_path_expression, 2627), (sym_field_expression, 2373),
     (sym_index_expression, 2373), (sym_ladder_diagram, 7970), (sym_fb_diagram, 7970),
     (aux_sym_ERR_fb_variables_after_method_repeat1, 2343), (aux_sym_func_decl_repeat1, 7194),
     (aux_sym_fb_decl_repeat3, 2549), (aux_sym_SFC_repeat1, 7612),
     (aux_sym_stmt_list_repeat1, 2024), (aux_sym_ladder_diagram_repeat1, 8009),
     (aux_sym_fb_diagram_repeat1, 8013), (sym_identifier, 298),
     (aux_sym_ERR_unexpected_this_in_path_token1, 304),
     (aux_sym_ERR_unexpected_super_in_path_token1, 306), (sym_line_comment, 3),
     (anon_sym_LBRACE, 308), (aux_sym_test_pragma_token1, 9), (aux_sym_once_pragma_token1, 11),
     (aux_sym_must_call_pragma_token1, 13), (aux_sym_export_pragma_token1, 15),
     (anon_sym_SEMI, 310), (anon_sym_PERCENT, 312), (aux_sym_input_decls_token1, 314),
     (aux_sym_output_decls_token1, 316), (aux_sym_in_out_decls_token1, 318),
     (aux_sym_var_decls_token1, 320), (aux_sym_temp_var_decls_token1, 322),
     (aux_sym_external_var_decls_token1, 324), (aux_sym_global_var_decls_token1, 326),
     (aux_sym_fb_decl_token4, 1200), (aux_sym_method_decl_token1, 330),
     (aux_sym_prog_access_decls_token1, 332), (aux_sym_initial_step_token1, 334),
     (aux_sym_config_init_token1, 336), (aux_sym__stmt_token1, 340), (aux_sym__stmt_token2, 340),
     (aux_sym__stmt_token3, 340), (aux_sym_if_stmt_token1, 342), (aux_sym_case_stmt_token1, 344),
     (aux_sym_for_stmt_token1, 346), (aux_sym_while_stmt_token1, 348),
     (aux_sym_repeat_stmt_token1, 350), (aux_sym_raise_stmt_token1, 352),
     (aux_sym_try_stmt_token1, 354), (aux_sym_try_stmt_token2, 356),
     (aux_sym_catch_clause_token1, 356), (aux_sym_finally_clause_token1, 356), (sym_ld_rung, 358),
     (sym_fbd_network, 360), (sym_c_style_comment, 3), (sym_pascal_style_comment, 3),
     (sym_pragma, 3)]"

lemma ts_parse_row_435_scan: "row_scan tokens_63_2 0 ts_parse_row_435 = Some (Suc (Suc (Suc (Suc 0))))"
  unfolding ts_parse_row_435_def by simp

text \<open>Lines 104477 to 104589.\<close>

definition ts_parse_row_436 :: parse_row where
  "ts_parse_row_436 =
    [(sym_ERR_assign_func_call, 7530), (sym_ERR_unexpected_this_in_path, 2372),
     (sym_ERR_unexpected_super_in_path, 2372), (sym_ERR_fb_variables_after_method, 1331),
     (sym_ERR_var_access_not_allowed, 3160), (sym_ERR_var_config_not_allowed, 3160),
     (sym_ERR_var_global_not_allowed, 3160), (sym_ERR_method_decl_in_body, 3150),
     (sym_extern_pragma, 7490), (sym_wasm_pragma, 3150), (sym_warn_pragma, 7490),
     (sym_allow_pragma, 3140), (sym_test_pragma, 7490), (sym_once_pragma, 7490),
     (sym_must_call_pragma, 7490), (sym_export_pragma, 7490), (sym_pou_pragma, 7194),
     (sym_direct_variable, 7675), (sym_deref_expression, 2373), (sym_variable, 7599),
     (sym_var_access, 2373), (sym_in_out_decls, 3160), (sym_var_decls, 3160),
     (sym_retain_var_decls, 3160), (sym_temp_var_decls, 3160), (sym_external_var_decls, 3160),
     (sym_global_var_decls, 2947), (sym_loc_partly_var_decl, 3160), (sym__fb_variables, 2347),
     (sym_fb_input_decls, 3160), (sym_fb_output_decls, 3160), (sym_no_retain_var_decls, 3160),
     (sym_fb_body, 10128), (sym_method_decl, 581), (sym_prog_access_decls, 3043), (sym_SFC, 7970),
     (sym_SFC_network, 7612), (sym_initial_step, 7439), (sym_config_init, 3047),
     (sym_variable_access, 7530), (sym_func_call, 2961), (sym_stmt_list, 7970), (sym__stmt, 2024),
     (sym_assign, 3150), (sym_if_stmt, 3150), (sym_case_stmt, 3150), (sym_for_stmt, 3150),
     (sym_while_stmt, 3150), (sym_repeat_stmt, 3150), (sym_raise_stmt, 3150), (sym_try_stmt, 3150),
     (sym_ERR_clause_outside_try, 3150), (sym_begin_path_expression, 2943), (sym_invocation, 2934),
     (sym_any_invocation, 2935), (sym_this_invocation, 2641), (sym_super_invocation, 2641),
     (sym_super_body_invocation, 2935), (sym_path_expression, 2627), (sym_field_expression, 2373),
     (sym_index_expression, 2373), (sym_ladder_diagram, 7970), (sym_fb_diagram, 7970),
     (aux_sym_ERR_fb_variables_after_method_repeat1, 2347), (aux_sym_func_decl_repeat1, 7194),
     (aux_sym_fb_decl_repeat3, 581), (aux_sym_SFC_repeat1, 7612), (aux_sym_stmt_list_repeat1, 2024),
     (aux_sym_ladder_diagram_repeat1, 8009), (aux_sym_fb_diagram_repeat1, 8013),
     (sym_identifier, 298), (aux_sym_ERR_unexpected_this_in_path_token1, 304),
     (aux_sym_ERR_unexpected_super_in_path_token1, 306), (sym_line_comment, 3),
     (anon_sym_LBRACE, 308), (aux_sym_test_pragma_token1, 9), (aux_sym_once_pragma_token1, 11),
     (aux_sym_must_call_pragma_token1, 13), (aux_sym_export_pragma_token1, 15),
     (anon_sym_SEMI, 310), (anon_sym_PERCENT, 312), (aux_sym_input_decls_token1, 314),
     (aux_sym_output_decls_token1, 316), (aux_sym_in_out_decls_token1, 318),
     (aux_sym_var_decls_token1, 320), (aux_sym_temp_var_decls_token1, 322),
     (aux_sym_external_var_decls_token1, 324), (aux_sym_global_var_decls_token1, 326),
     (aux_sym_fb_decl_token4, 1202), (aux_sym_method_decl_token1, 330),
     (aux_sym_prog_access_decls_token1, 332), (aux_sym_initial_step_token1, 334),
     (aux_sym_config_init_token1, 336), (aux_sym__stmt_token1, 340), (aux_sym__stmt_token2, 340),
     (aux_sym__stmt_token3, 340), (aux_sym_if_stmt_token1, 342), (aux_sym_case_stmt_token1, 344),
     (aux_sym_for_stmt_token1, 346), (aux_sym_while_stmt_token1, 348),
     (aux_sym_repeat_stmt_token1, 350), (aux_sym_raise_stmt_token1, 352),
     (aux_sym_try_stmt_token1, 354), (aux_sym_try_stmt_token2, 356),
     (aux_sym_catch_clause_token1, 356), (aux_sym_finally_clause_token1, 356), (sym_ld_rung, 358),
     (sym_fbd_network, 360), (sym_c_style_comment, 3), (sym_pascal_style_comment, 3),
     (sym_pragma, 3)]"

lemma ts_parse_row_436_scan: "row_scan tokens_63_2 0 ts_parse_row_436 = Some (Suc (Suc (Suc (Suc 0))))"
  unfolding ts_parse_row_436_def by simp

text \<open>Lines 104590 to 104702.\<close>

definition ts_parse_row_437 :: parse_row where
  "ts_parse_row_437 =
    [(sym_ERR_assign_func_call, 7530), (sym_ERR_unexpected_this_in_path, 2372),
     (sym_ERR_unexpected_super_in_path, 2372), (sym_ERR_fb_variables_after_method, 1664),
     (sym_ERR_var_access_not_allowed, 3160), (sym_ERR_var_config_not_allowed, 3160),
     (sym_ERR_var_global_not_allowed, 3160), (sym_ERR_method_decl_in_body, 3150),
     (sym_extern_pragma, 7490), (sym_wasm_pragma, 3150), (sym_warn_pragma, 7490),
     (sym_allow_pragma, 3140), (sym_test_pragma, 7490), (sym_once_pragma, 7490),
     (sym_must_call_pragma, 7490), (sym_export_pragma, 7490), (sym_pou_pragma, 7194),
     (sym_direct_variable, 7675), (sym_deref_expression, 2373), (sym_variable, 7599),
     (sym_var_access, 2373), (sym_in_out_decls, 3160), (sym_var_decls, 3160),
     (sym_retain_var_decls, 3160), (sym_temp_var_decls, 3160), (sym_external_var_decls, 3160),
     (sym_global_var_decls, 2947), (sym_loc_partly_var_decl, 3160), (sym__fb_variables, 2343),
     (sym_fb_input_decls, 3160), (sym_fb_output_decls, 3160), (sym_no_retain_var_decls, 3160),
     (sym_fb_body, 8704), (sym_method_decl, 2549), (sym_prog_access_decls, 3043), (sym_SFC, 7970),
     (sym_SFC_network, 7612), (sym_initial_step, 7439), (sym_config_init, 3047),
     (sym_variable_access, 7530), (sym_func_call, 2961), (sym_stmt_list, 7970), (sym__stmt, 2024),
     (sym_assign, 3150), (sym_if_stmt, 3150), (sym_case_stmt, 3150), (sym_for_stmt, 3150),
     (sym_while_stmt, 3150), (sym_repeat_stmt, 3150), (sym_raise_stmt, 3150), (sym_try_stmt, 3150),
     (sym_ERR_clause_outside_try, 3150), (sym_begin_path_expression, 2943), (sym_invocation, 2934),
     (sym_any_invocation, 2935), (sym_this_invocation, 2641), (sym_super_invocation, 2641),
     (sym_super_body_invocation, 2935), (sym_path_expression, 2627), (sym_field_expression, 2373),
     (sym_index_expression, 2373), (sym_ladder_diagram, 7970), (sym_fb_diagram, 7970),
     (aux_sym_ERR_fb_variables_after_method_repeat1, 2343), (aux_sym_func_decl_repeat1, 7194),
     (aux_sym_fb_decl_repeat3, 2549), (aux_sym_SFC_repeat1, 7612),
     (aux_sym_stmt_list_repeat1, 2024), (aux_sym_ladder_diagram_repeat1, 8009),
     (aux_sym_fb_diagram_repeat1, 8013), (sym_identifier, 298),
     (aux_sym_ERR_unexpected_this_in_path_token1, 304),
     (aux_sym_ERR_unexpected_super_in_path_token1, 306), (sym_line_comment, 3),
     (anon_sym_LBRACE, 308), (aux_sym_test_pragma_token1, 9), (aux_sym_once_pragma_token1, 11),
     (aux_sym_must_call_pragma_token1, 13), (aux_sym_export_pragma_token1, 15),
     (anon_sym_SEMI, 310), (anon_sym_PERCENT, 312), (aux_sym_input_decls_token1, 314),
     (aux_sym_output_decls_token1, 316), (aux_sym_in_out_decls_token1, 318),
     (aux_sym_var_decls_token1, 320), (aux_sym_temp_var_decls_token1, 322),
     (aux_sym_external_var_decls_token1, 324), (aux_sym_global_var_decls_token1, 326),
     (aux_sym_fb_decl_token4, 1204), (aux_sym_method_decl_token1, 330),
     (aux_sym_prog_access_decls_token1, 332), (aux_sym_initial_step_token1, 334),
     (aux_sym_config_init_token1, 336), (aux_sym__stmt_token1, 340), (aux_sym__stmt_token2, 340),
     (aux_sym__stmt_token3, 340), (aux_sym_if_stmt_token1, 342), (aux_sym_case_stmt_token1, 344),
     (aux_sym_for_stmt_token1, 346), (aux_sym_while_stmt_token1, 348),
     (aux_sym_repeat_stmt_token1, 350), (aux_sym_raise_stmt_token1, 352),
     (aux_sym_try_stmt_token1, 354), (aux_sym_try_stmt_token2, 356),
     (aux_sym_catch_clause_token1, 356), (aux_sym_finally_clause_token1, 356), (sym_ld_rung, 358),
     (sym_fbd_network, 360), (sym_c_style_comment, 3), (sym_pascal_style_comment, 3),
     (sym_pragma, 3)]"

lemma ts_parse_row_437_scan: "row_scan tokens_63_2 0 ts_parse_row_437 = Some (Suc (Suc (Suc (Suc 0))))"
  unfolding ts_parse_row_437_def by simp

text \<open>Lines 104703 to 104815.\<close>

definition ts_parse_row_438 :: parse_row where
  "ts_parse_row_438 =
    [(sym_ERR_assign_func_call, 7530), (sym_ERR_unexpected_this_in_path, 2372),
     (sym_ERR_unexpected_super_in_path, 2372), (sym_ERR_fb_variables_after_method, 1334),
     (sym_ERR_var_access_not_allowed, 3160), (sym_ERR_var_config_not_allowed, 3160),
     (sym_ERR_var_global_not_allowed, 3160), (sym_ERR_method_decl_in_body, 3150),
     (sym_extern_pragma, 7490), (sym_wasm_pragma, 3150), (sym_warn_pragma, 7490),
     (sym_allow_pragma, 3140), (sym_test_pragma, 7490), (sym_once_pragma, 7490),
     (sym_must_call_pragma, 7490), (sym_export_pragma, 7490), (sym_pou_pragma, 7194),
     (sym_direct_variable, 7675), (sym_deref_expression, 2373), (sym_variable, 7599),
     (sym_var_access, 2373), (sym_in_out_decls, 3160), (sym_var_decls, 3160),
     (sym_retain_var_decls, 3160), (sym_temp_var_decls, 3160), (sym_external_var_decls, 3160),
     (sym_global_var_decls, 2947), (sym_loc_partly_var_decl, 3160), (sym__fb_variables, 2343),
     (sym_fb_input_decls, 3160), (sym_fb_output_decls, 3160), (sym_no_retain_var_decls, 3160),
     (sym_fb_body, 10157), (sym_method_decl, 2549), (sym_prog_access_decls, 3043), (sym_SFC, 7970),
     (sym_SFC_network, 7612), (sym_initial_step, 7439), (sym_config_init, 3047),
     (sym_variable_access, 7530), (sym_func_call, 2961), (sym_stmt_list, 7970), (sym__stmt, 2024),
     (sym_assign, 3150), (sym_if_stmt, 3150), (sym_case_stmt, 3150), (sym_for_stmt, 3150),
     (sym_while_stmt, 3150), (sym_repeat_stmt, 3150), (sym_raise_stmt, 3150), (sym_try_stmt, 3150),
     (sym_ERR_clause_outside_try, 3150), (sym_begin_path_expression, 2943), (sym_invocation, 2934),
     (sym_any_invocation, 2935), (sym_this_invocation, 2641), (sym_super_invocation, 2641),
     (sym_super_body_invocation, 2935), (sym_path_expression, 2627), (sym_field_expression, 2373),
     (sym_index_expression, 2373), (sym_ladder_diagram, 7970), (sym_fb_diagram, 7970),
     (aux_sym_ERR_fb_variables_after_method_repeat1, 2343), (aux_sym_func_decl_repeat1, 7194),
     (aux_sym_fb_decl_repeat3, 2549), (aux_sym_SFC_repeat1, 7612),
     (aux_sym_stmt_list_repeat1, 2024), (aux_sym_ladder_diagram_repeat1, 8009),
     (aux_sym_fb_diagram_repeat1, 8013), (sym_identifier, 298),
     (aux_sym_ERR_unexpected_this_in_path_token1, 304),
     (aux_sym_ERR_unexpected_super_in_path_token1, 306), (sym_line_comment, 3),
     (anon_sym_LBRACE, 308), (aux_sym_test_pragma_token1, 9), (aux_sym_once_pragma_token1, 11),
     (aux_sym_must_call_pragma_token1, 13), (aux_sym_export_pragma_token1, 15),
     (anon_sym_SEMI, 310), (anon_sym_PERCENT, 312), (aux_sym_input_decls_token1, 314),
     (aux_sym_output_decls_token1, 316), (aux_sym_in_out_decls_token1, 318),
     (aux_sym_var_decls_token1, 320), (aux_sym_temp_var_decls_token1, 322),
     (aux_sym_external_var_decls_token1, 324), (aux_sym_global_var_decls_token1, 326),
     (aux_sym_fb_decl_token4, 1206), (aux_sym_method_decl_token1, 330),
     (aux_sym_prog_access_decls_token1, 332), (aux_sym_initial_step_token1, 334),
     (aux_sym_config_init_token1, 336), (aux_sym__stmt_token1, 340), (aux_sym__stmt_token2, 340),
     (aux_sym__stmt_token3, 340), (aux_sym_if_stmt_token1, 342), (aux_sym_case_stmt_token1, 344),
     (aux_sym_for_stmt_token1, 346), (aux_sym_while_stmt_token1, 348),
     (aux_sym_repeat_stmt_token1, 350), (aux_sym_raise_stmt_token1, 352),
     (aux_sym_try_stmt_token1, 354), (aux_sym_try_stmt_token2, 356),
     (aux_sym_catch_clause_token1, 356), (aux_sym_finally_clause_token1, 356), (sym_ld_rung, 358),
     (sym_fbd_network, 360), (sym_c_style_comment, 3), (sym_pascal_style_comment, 3),
     (sym_pragma, 3)]"

lemma ts_parse_row_438_scan: "row_scan tokens_63_2 0 ts_parse_row_438 = Some (Suc (Suc (Suc (Suc 0))))"
  unfolding ts_parse_row_438_def by simp

text \<open>Lines 104816 to 104928.\<close>

definition ts_parse_row_439 :: parse_row where
  "ts_parse_row_439 =
    [(sym_ERR_assign_func_call, 7530), (sym_ERR_unexpected_this_in_path, 2372),
     (sym_ERR_unexpected_super_in_path, 2372), (sym_ERR_fb_variables_after_method, 1335),
     (sym_ERR_var_access_not_allowed, 3160), (sym_ERR_var_config_not_allowed, 3160),
     (sym_ERR_var_global_not_allowed, 3160), (sym_ERR_method_decl_in_body, 3150),
     (sym_extern_pragma, 7490), (sym_wasm_pragma, 3150), (sym_warn_pragma, 7490),
     (sym_allow_pragma, 3140), (sym_test_pragma, 7490), (sym_once_pragma, 7490),
     (sym_must_call_pragma, 7490), (sym_export_pragma, 7490), (sym_pou_pragma, 7194),
     (sym_direct_variable, 7675), (sym_deref_expression, 2373), (sym_variable, 7599),
     (sym_var_access, 2373), (sym_in_out_decls, 3160), (sym_var_decls, 3160),
     (sym_retain_var_decls, 3160), (sym_temp_var_decls, 3160), (sym_external_var_decls, 3160),
     (sym_global_var_decls, 2947), (sym_loc_partly_var_decl, 3160), (sym__fb_variables, 2343),
     (sym_fb_input_decls, 3160), (sym_fb_output_decls, 3160), (sym_no_retain_var_decls, 3160),
     (sym_fb_body, 10215), (sym_method_decl, 2549), (sym_prog_access_decls, 3043), (sym_SFC, 7970),
     (sym_SFC_network, 7612), (sym_initial_step, 7439), (sym_config_init, 3047),
     (sym_variable_access, 7530), (sym_func_call, 2961), (sym_stmt_list, 7970), (sym__stmt, 2024),
     (sym_assign, 3150), (sym_if_stmt, 3150), (sym_case_stmt, 3150), (sym_for_stmt, 3150),
     (sym_while_stmt, 3150), (sym_repeat_stmt, 3150), (sym_raise_stmt, 3150), (sym_try_stmt, 3150),
     (sym_ERR_clause_outside_try, 3150), (sym_begin_path_expression, 2943), (sym_invocation, 2934),
     (sym_any_invocation, 2935), (sym_this_invocation, 2641), (sym_super_invocation, 2641),
     (sym_super_body_invocation, 2935), (sym_path_expression, 2627), (sym_field_expression, 2373),
     (sym_index_expression, 2373), (sym_ladder_diagram, 7970), (sym_fb_diagram, 7970),
     (aux_sym_ERR_fb_variables_after_method_repeat1, 2343), (aux_sym_func_decl_repeat1, 7194),
     (aux_sym_fb_decl_repeat3, 2549), (aux_sym_SFC_repeat1, 7612),
     (aux_sym_stmt_list_repeat1, 2024), (aux_sym_ladder_diagram_repeat1, 8009),
     (aux_sym_fb_diagram_repeat1, 8013), (sym_identifier, 298),
     (aux_sym_ERR_unexpected_this_in_path_token1, 304),
     (aux_sym_ERR_unexpected_super_in_path_token1, 306), (sym_line_comment, 3),
     (anon_sym_LBRACE, 308), (aux_sym_test_pragma_token1, 9), (aux_sym_once_pragma_token1, 11),
     (aux_sym_must_call_pragma_token1, 13), (aux_sym_export_pragma_token1, 15),
     (anon_sym_SEMI, 310), (anon_sym_PERCENT, 312), (aux_sym_input_decls_token1, 314),
     (aux_sym_output_decls_token1, 316), (aux_sym_in_out_decls_token1, 318),
     (aux_sym_var_decls_token1, 320), (aux_sym_temp_var_decls_token1, 322),
     (aux_sym_external_var_decls_token1, 324), (aux_sym_global_var_decls_token1, 326),
     (aux_sym_fb_decl_token4, 1208), (aux_sym_method_decl_token1, 330),
     (aux_sym_prog_access_decls_token1, 332), (aux_sym_initial_step_token1, 334),
     (aux_sym_config_init_token1, 336), (aux_sym__stmt_token1, 340), (aux_sym__stmt_token2, 340),
     (aux_sym__stmt_token3, 340), (aux_sym_if_stmt_token1, 342), (aux_sym_case_stmt_token1, 344),
     (aux_sym_for_stmt_token1, 346), (aux_sym_while_stmt_token1, 348),
     (aux_sym_repeat_stmt_token1, 350), (aux_sym_raise_stmt_token1, 352),
     (aux_sym_try_stmt_token1, 354), (aux_sym_try_stmt_token2, 356),
     (aux_sym_catch_clause_token1, 356), (aux_sym_finally_clause_token1, 356), (sym_ld_rung, 358),
     (sym_fbd_network, 360), (sym_c_style_comment, 3), (sym_pascal_style_comment, 3),
     (sym_pragma, 3)]"

lemma ts_parse_row_439_scan: "row_scan tokens_63_2 0 ts_parse_row_439 = Some (Suc (Suc (Suc (Suc 0))))"
  unfolding ts_parse_row_439_def by simp

text \<open>Lines 104929 to 105041.\<close>

definition ts_parse_row_440 :: parse_row where
  "ts_parse_row_440 =
    [(sym_ERR_assign_func_call, 7530), (sym_ERR_unexpected_this_in_path, 2372),
     (sym_ERR_unexpected_super_in_path, 2372), (sym_ERR_fb_variables_after_method, 1336),
     (sym_ERR_var_access_not_allowed, 3160), (sym_ERR_var_config_not_allowed, 3160),
     (sym_ERR_var_global_not_allowed, 3160), (sym_ERR_method_decl_in_body, 3150),
     (sym_extern_pragma, 7490), (sym_wasm_pragma, 3150), (sym_warn_pragma, 7490),
     (sym_allow_pragma, 3140), (sym_test_pragma, 7490), (sym_once_pragma, 7490),
     (sym_must_call_pragma, 7490), (sym_export_pragma, 7490), (sym_pou_pragma, 7194),
     (sym_direct_variable, 7675), (sym_deref_expression, 2373), (sym_variable, 7599),
     (sym_var_access, 2373), (sym_in_out_decls, 3160), (sym_var_decls, 3160),
     (sym_retain_var_decls, 3160), (sym_temp_var_decls, 3160), (sym_external_var_decls, 3160),
     (sym_global_var_decls, 2947), (sym_loc_partly_var_decl, 3160), (sym__fb_variables, 2343),
     (sym_fb_input_decls, 3160), (sym_fb_output_decls, 3160), (sym_no_retain_var_decls, 3160),
     (sym_fb_body, 10254), (sym_method_decl, 2549), (sym_prog_access_decls, 3043), (sym_SFC, 7970),
     (sym_SFC_network, 7612), (sym_initial_step, 7439), (sym_config_init, 3047),
     (sym_variable_access, 7530), (sym_func_call, 2961), (sym_stmt_list, 7970), (sym__stmt, 2024),
     (sym_assign, 3150), (sym_if_stmt, 3150), (sym_case_stmt, 3150), (sym_for_stmt, 3150),
     (sym_while_stmt, 3150), (sym_repeat_stmt, 3150), (sym_raise_stmt, 3150), (sym_try_stmt, 3150),
     (sym_ERR_clause_outside_try, 3150), (sym_begin_path_expression, 2943), (sym_invocation, 2934),
     (sym_any_invocation, 2935), (sym_this_invocation, 2641), (sym_super_invocation, 2641),
     (sym_super_body_invocation, 2935), (sym_path_expression, 2627), (sym_field_expression, 2373),
     (sym_index_expression, 2373), (sym_ladder_diagram, 7970), (sym_fb_diagram, 7970),
     (aux_sym_ERR_fb_variables_after_method_repeat1, 2343), (aux_sym_func_decl_repeat1, 7194),
     (aux_sym_fb_decl_repeat3, 2549), (aux_sym_SFC_repeat1, 7612),
     (aux_sym_stmt_list_repeat1, 2024), (aux_sym_ladder_diagram_repeat1, 8009),
     (aux_sym_fb_diagram_repeat1, 8013), (sym_identifier, 298),
     (aux_sym_ERR_unexpected_this_in_path_token1, 304),
     (aux_sym_ERR_unexpected_super_in_path_token1, 306), (sym_line_comment, 3),
     (anon_sym_LBRACE, 308), (aux_sym_test_pragma_token1, 9), (aux_sym_once_pragma_token1, 11),
     (aux_sym_must_call_pragma_token1, 13), (aux_sym_export_pragma_token1, 15),
     (anon_sym_SEMI, 310), (anon_sym_PERCENT, 312), (aux_sym_input_decls_token1, 314),
     (aux_sym_output_decls_token1, 316), (aux_sym_in_out_decls_token1, 318),
     (aux_sym_var_decls_token1, 320), (aux_sym_temp_var_decls_token1, 322),
     (aux_sym_external_var_decls_token1, 324), (aux_sym_global_var_decls_token1, 326),
     (aux_sym_fb_decl_token4, 1210), (aux_sym_method_decl_token1, 330),
     (aux_sym_prog_access_decls_token1, 332), (aux_sym_initial_step_token1, 334),
     (aux_sym_config_init_token1, 336), (aux_sym__stmt_token1, 340), (aux_sym__stmt_token2, 340),
     (aux_sym__stmt_token3, 340), (aux_sym_if_stmt_token1, 342), (aux_sym_case_stmt_token1, 344),
     (aux_sym_for_stmt_token1, 346), (aux_sym_while_stmt_token1, 348),
     (aux_sym_repeat_stmt_token1, 350), (aux_sym_raise_stmt_token1, 352),
     (aux_sym_try_stmt_token1, 354), (aux_sym_try_stmt_token2, 356),
     (aux_sym_catch_clause_token1, 356), (aux_sym_finally_clause_token1, 356), (sym_ld_rung, 358),
     (sym_fbd_network, 360), (sym_c_style_comment, 3), (sym_pascal_style_comment, 3),
     (sym_pragma, 3)]"

lemma ts_parse_row_440_scan: "row_scan tokens_63_2 0 ts_parse_row_440 = Some (Suc (Suc (Suc (Suc 0))))"
  unfolding ts_parse_row_440_def by simp

text \<open>Lines 105042 to 105154.\<close>

definition ts_parse_row_441 :: parse_row where
  "ts_parse_row_441 =
    [(sym_ERR_assign_func_call, 7530), (sym_ERR_unexpected_this_in_path, 2372),
     (sym_ERR_unexpected_super_in_path, 2372), (sym_ERR_fb_variables_after_method, 1337),
     (sym_ERR_var_access_not_allowed, 3160), (sym_ERR_var_config_not_allowed, 3160),
     (sym_ERR_var_global_not_allowed, 3160), (sym_ERR_method_decl_in_body, 3150),
     (sym_extern_pragma, 7490), (sym_wasm_pragma, 3150), (sym_warn_pragma, 7490),
     (sym_allow_pragma, 3140), (sym_test_pragma, 7490), (sym_once_pragma, 7490),
     (sym_must_call_pragma, 7490), (sym_export_pragma, 7490), (sym_pou_pragma, 7194),
     (sym_direct_variable, 7675), (sym_deref_expression, 2373), (sym_variable, 7599),
     (sym_var_access, 2373), (sym_in_out_decls, 3160), (sym_var_decls, 3160),
     (sym_retain_var_decls, 3160), (sym_temp_var_decls, 3160), (sym_external_var_decls, 3160),
     (sym_global_var_decls, 2947), (sym_loc_partly_var_decl, 3160), (sym__fb_variables, 2347),
     (sym_fb_input_decls, 3160), (sym_fb_output_decls, 3160), (sym_no_retain_var_decls, 3160),
     (sym_fb_body, 10284), (sym_method_decl, 584), (sym_prog_access_decls, 3043), (sym_SFC, 7970),
     (sym_SFC_network, 7612), (sym_initial_step, 7439), (sym_config_init, 3047),
     (sym_variable_access, 7530), (sym_func_call, 2961), (sym_stmt_list, 7970), (sym__stmt, 2024),
     (sym_assign, 3150), (sym_if_stmt, 3150), (sym_case_stmt, 3150), (sym_for_stmt, 3150),
     (sym_while_stmt, 3150), (sym_repeat_stmt, 3150), (sym_raise_stmt, 3150), (sym_try_stmt, 3150),
     (sym_ERR_clause_outside_try, 3150), (sym_begin_path_expression, 2943), (sym_invocation, 2934),
     (sym_any_invocation, 2935), (sym_this_invocation, 2641), (sym_super_invocation, 2641),
     (sym_super_body_invocation, 2935), (sym_path_expression, 2627), (sym_field_expression, 2373),
     (sym_index_expression, 2373), (sym_ladder_diagram, 7970), (sym_fb_diagram, 7970),
     (aux_sym_ERR_fb_variables_after_method_repeat1, 2347), (aux_sym_func_decl_repeat1, 7194),
     (aux_sym_fb_decl_repeat3, 584), (aux_sym_SFC_repeat1, 7612), (aux_sym_stmt_list_repeat1, 2024),
     (aux_sym_ladder_diagram_repeat1, 8009), (aux_sym_fb_diagram_repeat1, 8013),
     (sym_identifier, 298), (aux_sym_ERR_unexpected_this_in_path_token1, 304),
     (aux_sym_ERR_unexpected_super_in_path_token1, 306), (sym_line_comment, 3),
     (anon_sym_LBRACE, 308), (aux_sym_test_pragma_token1, 9), (aux_sym_once_pragma_token1, 11),
     (aux_sym_must_call_pragma_token1, 13), (aux_sym_export_pragma_token1, 15),
     (anon_sym_SEMI, 310), (anon_sym_PERCENT, 312), (aux_sym_input_decls_token1, 314),
     (aux_sym_output_decls_token1, 316), (aux_sym_in_out_decls_token1, 318),
     (aux_sym_var_decls_token1, 320), (aux_sym_temp_var_decls_token1, 322),
     (aux_sym_external_var_decls_token1, 324), (aux_sym_global_var_decls_token1, 326),
     (aux_sym_fb_decl_token4, 1212), (aux_sym_method_decl_token1, 330),
     (aux_sym_prog_access_decls_token1, 332), (aux_sym_initial_step_token1, 334),
     (aux_sym_config_init_token1, 336), (aux_sym__stmt_token1, 340), (aux_sym__stmt_token2, 340),
     (aux_sym__stmt_token3, 340), (aux_sym_if_stmt_token1, 342), (aux_sym_case_stmt_token1, 344),
     (aux_sym_for_stmt_token1, 346), (aux_sym_while_stmt_token1, 348),
     (aux_sym_repeat_stmt_token1, 350), (aux_sym_raise_stmt_token1, 352),
     (aux_sym_try_stmt_token1, 354), (aux_sym_try_stmt_token2, 356),
     (aux_sym_catch_clause_token1, 356), (aux_sym_finally_clause_token1, 356), (sym_ld_rung, 358),
     (sym_fbd_network, 360), (sym_c_style_comment, 3), (sym_pascal_style_comment, 3),
     (sym_pragma, 3)]"

lemma ts_parse_row_441_scan: "row_scan tokens_63_2 0 ts_parse_row_441 = Some (Suc (Suc (Suc (Suc 0))))"
  unfolding ts_parse_row_441_def by simp

text \<open>Lines 105155 to 105267.\<close>

definition ts_parse_row_442 :: parse_row where
  "ts_parse_row_442 =
    [(sym_ERR_assign_func_call, 7530), (sym_ERR_unexpected_this_in_path, 2372),
     (sym_ERR_unexpected_super_in_path, 2372), (sym_ERR_fb_variables_after_method, 1339),
     (sym_ERR_var_access_not_allowed, 3160), (sym_ERR_var_config_not_allowed, 3160),
     (sym_ERR_var_global_not_allowed, 3160), (sym_ERR_method_decl_in_body, 3150),
     (sym_extern_pragma, 7490), (sym_wasm_pragma, 3150), (sym_warn_pragma, 7490),
     (sym_allow_pragma, 3140), (sym_test_pragma, 7490), (sym_once_pragma, 7490),
     (sym_must_call_pragma, 7490), (sym_export_pragma, 7490), (sym_pou_pragma, 7194),
     (sym_direct_variable, 7675), (sym_deref_expression, 2373), (sym_variable, 7599),
     (sym_var_access, 2373), (sym_in_out_decls, 3160), (sym_var_decls, 3160),
     (sym_retain_var_decls, 3160), (sym_temp_var_decls, 3160), (sym_external_var_decls, 3160),
     (sym_global_var_decls, 2947), (sym_loc_partly_var_decl, 3160), (sym__fb_variables, 2343),
     (sym_fb_input_decls, 3160), (sym_fb_output_decls, 3160), (sym_no_retain_var_decls, 3160),
     (sym_fb_body, 10301), (sym_method_decl, 2549), (sym_prog_access_decls, 3043), (sym_SFC, 7970),
     (sym_SFC_network, 7612), (sym_initial_step, 7439), (sym_config_init, 3047),
     (sym_variable_access, 7530), (sym_func_call, 2961), (sym_stmt_list, 7970), (sym__stmt, 2024),
     (sym_assign, 3150), (sym_if_stmt, 3150), (sym_case_stmt, 3150), (sym_for_stmt, 3150),
     (sym_while_stmt, 3150), (sym_repeat_stmt, 3150), (sym_raise_stmt, 3150), (sym_try_stmt, 3150),
     (sym_ERR_clause_outside_try, 3150), (sym_begin_path_expression, 2943), (sym_invocation, 2934),
     (sym_any_invocation, 2935), (sym_this_invocation, 2641), (sym_super_invocation, 2641),
     (sym_super_body_invocation, 2935), (sym_path_expression, 2627), (sym_field_expression, 2373),
     (sym_index_expression, 2373), (sym_ladder_diagram, 7970), (sym_fb_diagram, 7970),
     (aux_sym_ERR_fb_variables_after_method_repeat1, 2343), (aux_sym_func_decl_repeat1, 7194),
     (aux_sym_fb_decl_repeat3, 2549), (aux_sym_SFC_repeat1, 7612),
     (aux_sym_stmt_list_repeat1, 2024), (aux_sym_ladder_diagram_repeat1, 8009),
     (aux_sym_fb_diagram_repeat1, 8013), (sym_identifier, 298),
     (aux_sym_ERR_unexpected_this_in_path_token1, 304),
     (aux_sym_ERR_unexpected_super_in_path_token1, 306), (sym_line_comment, 3),
     (anon_sym_LBRACE, 308), (aux_sym_test_pragma_token1, 9), (aux_sym_once_pragma_token1, 11),
     (aux_sym_must_call_pragma_token1, 13), (aux_sym_export_pragma_token1, 15),
     (anon_sym_SEMI, 310), (anon_sym_PERCENT, 312), (aux_sym_input_decls_token1, 314),
     (aux_sym_output_decls_token1, 316), (aux_sym_in_out_decls_token1, 318),
     (aux_sym_var_decls_token1, 320), (aux_sym_temp_var_decls_token1, 322),
     (aux_sym_external_var_decls_token1, 324), (aux_sym_global_var_decls_token1, 326),
     (aux_sym_fb_decl_token4, 1214), (aux_sym_method_decl_token1, 330),
     (aux_sym_prog_access_decls_token1, 332), (aux_sym_initial_step_token1, 334),
     (aux_sym_config_init_token1, 336), (aux_sym__stmt_token1, 340), (aux_sym__stmt_token2, 340),
     (aux_sym__stmt_token3, 340), (aux_sym_if_stmt_token1, 342), (aux_sym_case_stmt_token1, 344),
     (aux_sym_for_stmt_token1, 346), (aux_sym_while_stmt_token1, 348),
     (aux_sym_repeat_stmt_token1, 350), (aux_sym_raise_stmt_token1, 352),
     (aux_sym_try_stmt_token1, 354), (aux_sym_try_stmt_token2, 356),
     (aux_sym_catch_clause_token1, 356), (aux_sym_finally_clause_token1, 356), (sym_ld_rung, 358),
     (sym_fbd_network, 360), (sym_c_style_comment, 3), (sym_pascal_style_comment, 3),
     (sym_pragma, 3)]"

lemma ts_parse_row_442_scan: "row_scan tokens_63_2 0 ts_parse_row_442 = Some (Suc (Suc (Suc (Suc 0))))"
  unfolding ts_parse_row_442_def by simp

text \<open>Lines 105268 to 105380.\<close>

definition ts_parse_row_443 :: parse_row where
  "ts_parse_row_443 =
    [(sym_ERR_assign_func_call, 7530), (sym_ERR_unexpected_this_in_path, 2372),
     (sym_ERR_unexpected_super_in_path, 2372), (sym_ERR_fb_variables_after_method, 1340),
     (sym_ERR_var_access_not_allowed, 3160), (sym_ERR_var_config_not_allowed, 3160),
     (sym_ERR_var_global_not_allowed, 3160), (sym_ERR_method_decl_in_body, 3150),
     (sym_extern_pragma, 7490), (sym_wasm_pragma, 3150), (sym_warn_pragma, 7490),
     (sym_allow_pragma, 3140), (sym_test_pragma, 7490), (sym_once_pragma, 7490),
     (sym_must_call_pragma, 7490), (sym_export_pragma, 7490), (sym_pou_pragma, 7194),
     (sym_direct_variable, 7675), (sym_deref_expression, 2373), (sym_variable, 7599),
     (sym_var_access, 2373), (sym_in_out_decls, 3160), (sym_var_decls, 3160),
     (sym_retain_var_decls, 3160), (sym_temp_var_decls, 3160), (sym_external_var_decls, 3160),
     (sym_global_var_decls, 2947), (sym_loc_partly_var_decl, 3160), (sym__fb_variables, 2347),
     (sym_fb_input_decls, 3160), (sym_fb_output_decls, 3160), (sym_no_retain_var_decls, 3160),
     (sym_fb_body, 10333), (sym_method_decl, 585), (sym_prog_access_decls, 3043), (sym_SFC, 7970),
     (sym_SFC_network, 7612), (sym_initial_step, 7439), (sym_config_init, 3047),
     (sym_variable_access, 7530), (sym_func_call, 2961), (sym_stmt_list, 7970), (sym__stmt, 2024),
     (sym_assign, 3150), (sym_if_stmt, 3150), (sym_case_stmt, 3150), (sym_for_stmt, 3150),
     (sym_while_stmt, 3150), (sym_repeat_stmt, 3150), (sym_raise_stmt, 3150), (sym_try_stmt, 3150),
     (sym_ERR_clause_outside_try, 3150), (sym_begin_path_expression, 2943), (sym_invocation, 2934),
     (sym_any_invocation, 2935), (sym_this_invocation, 2641), (sym_super_invocation, 2641),
     (sym_super_body_invocation, 2935), (sym_path_expression, 2627), (sym_field_expression, 2373),
     (sym_index_expression, 2373), (sym_ladder_diagram, 7970), (sym_fb_diagram, 7970),
     (aux_sym_ERR_fb_variables_after_method_repeat1, 2347), (aux_sym_func_decl_repeat1, 7194),
     (aux_sym_fb_decl_repeat3, 585), (aux_sym_SFC_repeat1, 7612), (aux_sym_stmt_list_repeat1, 2024),
     (aux_sym_ladder_diagram_repeat1, 8009), (aux_sym_fb_diagram_repeat1, 8013),
     (sym_identifier, 298), (aux_sym_ERR_unexpected_this_in_path_token1, 304),
     (aux_sym_ERR_unexpected_super_in_path_token1, 306), (sym_line_comment, 3),
     (anon_sym_LBRACE, 308), (aux_sym_test_pragma_token1, 9), (aux_sym_once_pragma_token1, 11),
     (aux_sym_must_call_pragma_token1, 13), (aux_sym_export_pragma_token1, 15),
     (anon_sym_SEMI, 310), (anon_sym_PERCENT, 312), (aux_sym_input_decls_token1, 314),
     (aux_sym_output_decls_token1, 316), (aux_sym_in_out_decls_token1, 318),
     (aux_sym_var_decls_token1, 320), (aux_sym_temp_var_decls_token1, 322),
     (aux_sym_external_var_decls_token1, 324), (aux_sym_global_var_decls_token1, 326),
     (aux_sym_fb_decl_token4, 1216), (aux_sym_method_decl_token1, 330),
     (aux_sym_prog_access_decls_token1, 332), (aux_sym_initial_step_token1, 334),
     (aux_sym_config_init_token1, 336), (aux_sym__stmt_token1, 340), (aux_sym__stmt_token2, 340),
     (aux_sym__stmt_token3, 340), (aux_sym_if_stmt_token1, 342), (aux_sym_case_stmt_token1, 344),
     (aux_sym_for_stmt_token1, 346), (aux_sym_while_stmt_token1, 348),
     (aux_sym_repeat_stmt_token1, 350), (aux_sym_raise_stmt_token1, 352),
     (aux_sym_try_stmt_token1, 354), (aux_sym_try_stmt_token2, 356),
     (aux_sym_catch_clause_token1, 356), (aux_sym_finally_clause_token1, 356), (sym_ld_rung, 358),
     (sym_fbd_network, 360), (sym_c_style_comment, 3), (sym_pascal_style_comment, 3),
     (sym_pragma, 3)]"

lemma ts_parse_row_443_scan: "row_scan tokens_63_2 0 ts_parse_row_443 = Some (Suc (Suc (Suc (Suc 0))))"
  unfolding ts_parse_row_443_def by simp

text \<open>Lines 105381 to 105493.\<close>

definition ts_parse_row_444 :: parse_row where
  "ts_parse_row_444 =
    [(sym_ERR_assign_func_call, 7530), (sym_ERR_unexpected_this_in_path, 2372),
     (sym_ERR_unexpected_super_in_path, 2372), (sym_ERR_fb_variables_after_method, 1989),
     (sym_ERR_var_access_not_allowed, 3160), (sym_ERR_var_config_not_allowed, 3160),
     (sym_ERR_var_global_not_allowed, 3160), (sym_ERR_method_decl_in_body, 3150),
     (sym_extern_pragma, 7490), (sym_wasm_pragma, 3150), (sym_warn_pragma, 7490),
     (sym_allow_pragma, 3140), (sym_test_pragma, 7490), (sym_once_pragma, 7490),
     (sym_must_call_pragma, 7490), (sym_export_pragma, 7490), (sym_pou_pragma, 7194),
     (sym_direct_variable, 7675), (sym_deref_expression, 2373), (sym_variable, 7599),
     (sym_var_access, 2373), (sym_in_out_decls, 3160), (sym_var_decls, 3160),
     (sym_retain_var_decls, 3160), (sym_temp_var_decls, 3160), (sym_external_var_decls, 3160),
     (sym_global_var_decls, 2947), (sym_loc_partly_var_decl, 3160), (sym__fb_variables, 2343),
     (sym_fb_input_decls, 3160), (sym_fb_output_decls, 3160), (sym_no_retain_var_decls, 3160),
     (sym_fb_body, 9364), (sym_method_decl, 2549), (sym_prog_access_decls, 3043), (sym_SFC, 7970),
     (sym_SFC_network, 7612), (sym_initial_step, 7439), (sym_config_init, 3047),
     (sym_variable_access, 7530), (sym_func_call, 2961), (sym_stmt_list, 7970), (sym__stmt, 2024),
     (sym_assign, 3150), (sym_if_stmt, 3150), (sym_case_stmt, 3150), (sym_for_stmt, 3150),
     (sym_while_stmt, 3150), (sym_repeat_stmt, 3150), (sym_raise_stmt, 3150), (sym_try_stmt, 3150),
     (sym_ERR_clause_outside_try, 3150), (sym_begin_path_expression, 2943), (sym_invocation, 2934),
     (sym_any_invocation, 2935), (sym_this_invocation, 2641), (sym_super_invocation, 2641),
     (sym_super_body_invocation, 2935), (sym_path_expression, 2627), (sym_field_expression, 2373),
     (sym_index_expression, 2373), (sym_ladder_diagram, 7970), (sym_fb_diagram, 7970),
     (aux_sym_ERR_fb_variables_after_method_repeat1, 2343), (aux_sym_func_decl_repeat1, 7194),
     (aux_sym_fb_decl_repeat3, 2549), (aux_sym_SFC_repeat1, 7612),
     (aux_sym_stmt_list_repeat1, 2024), (aux_sym_ladder_diagram_repeat1, 8009),
     (aux_sym_fb_diagram_repeat1, 8013), (sym_identifier, 298),
     (aux_sym_ERR_unexpected_this_in_path_token1, 304),
     (aux_sym_ERR_unexpected_super_in_path_token1, 306), (sym_line_comment, 3),
     (anon_sym_LBRACE, 308), (aux_sym_test_pragma_token1, 9), (aux_sym_once_pragma_token1, 11),
     (aux_sym_must_call_pragma_token1, 13), (aux_sym_export_pragma_token1, 15),
     (anon_sym_SEMI, 310), (anon_sym_PERCENT, 312), (aux_sym_input_decls_token1, 314),
     (aux_sym_output_decls_token1, 316), (aux_sym_in_out_decls_token1, 318),
     (aux_sym_var_decls_token1, 320), (aux_sym_temp_var_decls_token1, 322),
     (aux_sym_external_var_decls_token1, 324), (aux_sym_global_var_decls_token1, 326),
     (aux_sym_fb_decl_token4, 1218), (aux_sym_method_decl_token1, 330),
     (aux_sym_prog_access_decls_token1, 332), (aux_sym_initial_step_token1, 334),
     (aux_sym_config_init_token1, 336), (aux_sym__stmt_token1, 340), (aux_sym__stmt_token2, 340),
     (aux_sym__stmt_token3, 340), (aux_sym_if_stmt_token1, 342), (aux_sym_case_stmt_token1, 344),
     (aux_sym_for_stmt_token1, 346), (aux_sym_while_stmt_token1, 348),
     (aux_sym_repeat_stmt_token1, 350), (aux_sym_raise_stmt_token1, 352),
     (aux_sym_try_stmt_token1, 354), (aux_sym_try_stmt_token2, 356),
     (aux_sym_catch_clause_token1, 356), (aux_sym_finally_clause_token1, 356), (sym_ld_rung, 358),
     (sym_fbd_network, 360), (sym_c_style_comment, 3), (sym_pascal_style_comment, 3),
     (sym_pragma, 3)]"

lemma ts_parse_row_444_scan: "row_scan tokens_63_2 0 ts_parse_row_444 = Some (Suc (Suc (Suc (Suc 0))))"
  unfolding ts_parse_row_444_def by simp

text \<open>Lines 105494 to 105606.\<close>

definition ts_parse_row_445 :: parse_row where
  "ts_parse_row_445 =
    [(sym_ERR_assign_func_call, 7530), (sym_ERR_unexpected_this_in_path, 2372),
     (sym_ERR_unexpected_super_in_path, 2372), (sym_ERR_fb_variables_after_method, 1991),
     (sym_ERR_var_access_not_allowed, 3160), (sym_ERR_var_config_not_allowed, 3160),
     (sym_ERR_var_global_not_allowed, 3160), (sym_ERR_method_decl_in_body, 3150),
     (sym_extern_pragma, 7490), (sym_wasm_pragma, 3150), (sym_warn_pragma, 7490),
     (sym_allow_pragma, 3140), (sym_test_pragma, 7490), (sym_once_pragma, 7490),
     (sym_must_call_pragma, 7490), (sym_export_pragma, 7490), (sym_pou_pragma, 7194),
     (sym_direct_variable, 7675), (sym_deref_expression, 2373), (sym_variable, 7599),
     (sym_var_access, 2373), (sym_in_out_decls, 3160), (sym_var_decls, 3160),
     (sym_retain_var_decls, 3160), (sym_temp_var_decls, 3160), (sym_external_var_decls, 3160),
     (sym_global_var_decls, 2947), (sym_loc_partly_var_decl, 3160), (sym__fb_variables, 2347),
     (sym_fb_input_decls, 3160), (sym_fb_output_decls, 3160), (sym_no_retain_var_decls, 3160),
     (sym_fb_body, 9389), (sym_method_decl, 560), (sym_prog_access_decls, 3043), (sym_SFC, 7970),
     (sym_SFC_network, 7612), (sym_initial_step, 7439), (sym_config_init, 3047),
     (sym_variable_access, 7530), (sym_func_call, 2961), (sym_stmt_list, 7970), (sym__stmt, 2024),
     (sym_assign, 3150), (sym_if_stmt, 3150), (sym_case_stmt, 3150), (sym_for_stmt, 3150),
     (sym_while_stmt, 3150), (sym_repeat_stmt, 3150), (sym_raise_stmt, 3150), (sym_try_stmt, 3150),
     (sym_ERR_clause_outside_try, 3150), (sym_begin_path_expression, 2943), (sym_invocation, 2934),
     (sym_any_invocation, 2935), (sym_this_invocation, 2641), (sym_super_invocation, 2641),
     (sym_super_body_invocation, 2935), (sym_path_expression, 2627), (sym_field_expression, 2373),
     (sym_index_expression, 2373), (sym_ladder_diagram, 7970), (sym_fb_diagram, 7970),
     (aux_sym_ERR_fb_variables_after_method_repeat1, 2347), (aux_sym_func_decl_repeat1, 7194),
     (aux_sym_fb_decl_repeat3, 560), (aux_sym_SFC_repeat1, 7612), (aux_sym_stmt_list_repeat1, 2024),
     (aux_sym_ladder_diagram_repeat1, 8009), (aux_sym_fb_diagram_repeat1, 8013),
     (sym_identifier, 298), (aux_sym_ERR_unexpected_this_in_path_token1, 304),
     (aux_sym_ERR_unexpected_super_in_path_token1, 306), (sym_line_comment, 3),
     (anon_sym_LBRACE, 308), (aux_sym_test_pragma_token1, 9), (aux_sym_once_pragma_token1, 11),
     (aux_sym_must_call_pragma_token1, 13), (aux_sym_export_pragma_token1, 15),
     (anon_sym_SEMI, 310), (anon_sym_PERCENT, 312), (aux_sym_input_decls_token1, 314),
     (aux_sym_output_decls_token1, 316), (aux_sym_in_out_decls_token1, 318),
     (aux_sym_var_decls_token1, 320), (aux_sym_temp_var_decls_token1, 322),
     (aux_sym_external_var_decls_token1, 324), (aux_sym_global_var_decls_token1, 326),
     (aux_sym_fb_decl_token4, 1220), (aux_sym_method_decl_token1, 330),
     (aux_sym_prog_access_decls_token1, 332), (aux_sym_initial_step_token1, 334),
     (aux_sym_config_init_token1, 336), (aux_sym__stmt_token1, 340), (aux_sym__stmt_token2, 340),
     (aux_sym__stmt_token3, 340), (aux_sym_if_stmt_token1, 342), (aux_sym_case_stmt_token1, 344),
     (aux_sym_for_stmt_token1, 346), (aux_sym_while_stmt_token1, 348),
     (aux_sym_repeat_stmt_token1, 350), (aux_sym_raise_stmt_token1, 352),
     (aux_sym_try_stmt_token1, 354), (aux_sym_try_stmt_token2, 356),
     (aux_sym_catch_clause_token1, 356), (aux_sym_finally_clause_token1, 356), (sym_ld_rung, 358),
     (sym_fbd_network, 360), (sym_c_style_comment, 3), (sym_pascal_style_comment, 3),
     (sym_pragma, 3)]"

lemma ts_parse_row_445_scan: "row_scan tokens_63_2 0 ts_parse_row_445 = Some (Suc (Suc (Suc (Suc 0))))"
  unfolding ts_parse_row_445_def by simp

text \<open>Lines 105607 to 105719.\<close>

definition ts_parse_row_446 :: parse_row where
  "ts_parse_row_446 =
    [(sym_ERR_assign_func_call, 7530), (sym_ERR_unexpected_this_in_path, 2372),
     (sym_ERR_unexpected_super_in_path, 2372), (sym_ERR_fb_variables_after_method, 1343),
     (sym_ERR_var_access_not_allowed, 3160), (sym_ERR_var_config_not_allowed, 3160),
     (sym_ERR_var_global_not_allowed, 3160), (sym_ERR_method_decl_in_body, 3150),
     (sym_extern_pragma, 7490), (sym_wasm_pragma, 3150), (sym_warn_pragma, 7490),
     (sym_allow_pragma, 3140), (sym_test_pragma, 7490), (sym_once_pragma, 7490),
     (sym_must_call_pragma, 7490), (sym_export_pragma, 7490), (sym_pou_pragma, 7194),
     (sym_direct_variable, 7675), (sym_deref_expression, 2373), (sym_variable, 7599),
     (sym_var_access, 2373), (sym_in_out_decls, 3160), (sym_var_decls, 3160),
     (sym_retain_var_decls, 3160), (sym_temp_var_decls, 3160), (sym_external_var_decls, 3160),
     (sym_global_var_decls, 2947), (sym_loc_partly_var_decl, 3160), (sym__fb_variables, 2343),
     (sym_fb_input_decls, 3160), (sym_fb_output_decls, 3160), (sym_no_retain_var_decls, 3160),
     (sym_fb_body, 10366), (sym_method_decl, 2549), (sym_prog_access_decls, 3043), (sym_SFC, 7970),
     (sym_SFC_network, 7612), (sym_initial_step, 7439), (sym_config_init, 3047),
     (sym_variable_access, 7530), (sym_func_call, 2961), (sym_stmt_list, 7970), (sym__stmt, 2024),
     (sym_assign, 3150), (sym_if_stmt, 3150), (sym_case_stmt, 3150), (sym_for_stmt, 3150),
     (sym_while_stmt, 3150), (sym_repeat_stmt, 3150), (sym_raise_stmt, 3150), (sym_try_stmt, 3150),
     (sym_ERR_clause_outside_try, 3150), (sym_begin_path_expression, 2943), (sym_invocation, 2934),
     (sym_any_invocation, 2935), (sym_this_invocation, 2641), (sym_super_invocation, 2641),
     (sym_super_body_invocation, 2935), (sym_path_expression, 2627), (sym_field_expression, 2373),
     (sym_index_expression, 2373), (sym_ladder_diagram, 7970), (sym_fb_diagram, 7970),
     (aux_sym_ERR_fb_variables_after_method_repeat1, 2343), (aux_sym_func_decl_repeat1, 7194),
     (aux_sym_fb_decl_repeat3, 2549), (aux_sym_SFC_repeat1, 7612),
     (aux_sym_stmt_list_repeat1, 2024), (aux_sym_ladder_diagram_repeat1, 8009),
     (aux_sym_fb_diagram_repeat1, 8013), (sym_identifier, 298),
     (aux_sym_ERR_unexpected_this_in_path_token1, 304),
     (aux_sym_ERR_unexpected_super_in_path_token1, 306), (sym_line_comment, 3),
     (anon_sym_LBRACE, 308), (aux_sym_test_pragma_token1, 9), (aux_sym_once_pragma_token1, 11),
     (aux_sym_must_call_pragma_token1, 13), (aux_sym_export_pragma_token1, 15),
     (anon_sym_SEMI, 310), (anon_sym_PERCENT, 312), (aux_sym_input_decls_token1, 314),
     (aux_sym_output_decls_token1, 316), (aux_sym_in_out_decls_token1, 318),
     (aux_sym_var_decls_token1, 320), (aux_sym_temp_var_decls_token1, 322),
     (aux_sym_external_var_decls_token1, 324), (aux_sym_global_var_decls_token1, 326),
     (aux_sym_fb_decl_token4, 1222), (aux_sym_method_decl_token1, 330),
     (aux_sym_prog_access_decls_token1, 332), (aux_sym_initial_step_token1, 334),
     (aux_sym_config_init_token1, 336), (aux_sym__stmt_token1, 340), (aux_sym__stmt_token2, 340),
     (aux_sym__stmt_token3, 340), (aux_sym_if_stmt_token1, 342), (aux_sym_case_stmt_token1, 344),
     (aux_sym_for_stmt_token1, 346), (aux_sym_while_stmt_token1, 348),
     (aux_sym_repeat_stmt_token1, 350), (aux_sym_raise_stmt_token1, 352),
     (aux_sym_try_stmt_token1, 354), (aux_sym_try_stmt_token2, 356),
     (aux_sym_catch_clause_token1, 356), (aux_sym_finally_clause_token1, 356), (sym_ld_rung, 358),
     (sym_fbd_network, 360), (sym_c_style_comment, 3), (sym_pascal_style_comment, 3),
     (sym_pragma, 3)]"

lemma ts_parse_row_446_scan: "row_scan tokens_63_2 0 ts_parse_row_446 = Some (Suc (Suc (Suc (Suc 0))))"
  unfolding ts_parse_row_446_def by simp

text \<open>Lines 105720 to 105832.\<close>

definition ts_parse_row_447 :: parse_row where
  "ts_parse_row_447 =
    [(sym_ERR_assign_func_call, 7530), (sym_ERR_unexpected_this_in_path, 2372),
     (sym_ERR_unexpected_super_in_path, 2372), (sym_ERR_fb_variables_after_method, 1344),
     (sym_ERR_var_access_not_allowed, 3160), (sym_ERR_var_config_not_allowed, 3160),
     (sym_ERR_var_global_not_allowed, 3160), (sym_ERR_method_decl_in_body, 3150),
     (sym_extern_pragma, 7490), (sym_wasm_pragma, 3150), (sym_warn_pragma, 7490),
     (sym_allow_pragma, 3140), (sym_test_pragma, 7490), (sym_once_pragma, 7490),
     (sym_must_call_pragma, 7490), (sym_export_pragma, 7490), (sym_pou_pragma, 7194),
     (sym_direct_variable, 7675), (sym_deref_expression, 2373), (sym_variable, 7599),
     (sym_var_access, 2373), (sym_in_out_decls, 3160), (sym_var_decls, 3160),
     (sym_retain_var_decls, 3160), (sym_temp_var_decls, 3160), (sym_external_var_decls, 3160),
     (sym_global_var_decls, 2947), (sym_loc_partly_var_decl, 3160), (sym__fb_variables, 2343),
     (sym_fb_input_decls, 3160), (sym_fb_output_decls, 3160), (sym_no_retain_var_decls, 3160),
     (sym_fb_body, 10404), (sym_method_decl, 2549), (sym_prog_access_decls, 3043), (sym_SFC, 7970),
     (sym_SFC_network, 7612), (sym_initial_step, 7439), (sym_config_init, 3047),
     (sym_variable_access, 7530), (sym_func_call, 2961), (sym_stmt_list, 7970), (sym__stmt, 2024),
     (sym_assign, 3150), (sym_if_stmt, 3150), (sym_case_stmt, 3150), (sym_for_stmt, 3150),
     (sym_while_stmt, 3150), (sym_repeat_stmt, 3150), (sym_raise_stmt, 3150), (sym_try_stmt, 3150),
     (sym_ERR_clause_outside_try, 3150), (sym_begin_path_expression, 2943), (sym_invocation, 2934),
     (sym_any_invocation, 2935), (sym_this_invocation, 2641), (sym_super_invocation, 2641),
     (sym_super_body_invocation, 2935), (sym_path_expression, 2627), (sym_field_expression, 2373),
     (sym_index_expression, 2373), (sym_ladder_diagram, 7970), (sym_fb_diagram, 7970),
     (aux_sym_ERR_fb_variables_after_method_repeat1, 2343), (aux_sym_func_decl_repeat1, 7194),
     (aux_sym_fb_decl_repeat3, 2549), (aux_sym_SFC_repeat1, 7612),
     (aux_sym_stmt_list_repeat1, 2024), (aux_sym_ladder_diagram_repeat1, 8009),
     (aux_sym_fb_diagram_repeat1, 8013), (sym_identifier, 298),
     (aux_sym_ERR_unexpected_this_in_path_token1, 304),
     (aux_sym_ERR_unexpected_super_in_path_token1, 306), (sym_line_comment, 3),
     (anon_sym_LBRACE, 308), (aux_sym_test_pragma_token1, 9), (aux_sym_once_pragma_token1, 11),
     (aux_sym_must_call_pragma_token1, 13), (aux_sym_export_pragma_token1, 15),
     (anon_sym_SEMI, 310), (anon_sym_PERCENT, 312), (aux_sym_input_decls_token1, 314),
     (aux_sym_output_decls_token1, 316), (aux_sym_in_out_decls_token1, 318),
     (aux_sym_var_decls_token1, 320), (aux_sym_temp_var_decls_token1, 322),
     (aux_sym_external_var_decls_token1, 324), (aux_sym_global_var_decls_token1, 326),
     (aux_sym_fb_decl_token4, 1224), (aux_sym_method_decl_token1, 330),
     (aux_sym_prog_access_decls_token1, 332), (aux_sym_initial_step_token1, 334),
     (aux_sym_config_init_token1, 336), (aux_sym__stmt_token1, 340), (aux_sym__stmt_token2, 340),
     (aux_sym__stmt_token3, 340), (aux_sym_if_stmt_token1, 342), (aux_sym_case_stmt_token1, 344),
     (aux_sym_for_stmt_token1, 346), (aux_sym_while_stmt_token1, 348),
     (aux_sym_repeat_stmt_token1, 350), (aux_sym_raise_stmt_token1, 352),
     (aux_sym_try_stmt_token1, 354), (aux_sym_try_stmt_token2, 356),
     (aux_sym_catch_clause_token1, 356), (aux_sym_finally_clause_token1, 356), (sym_ld_rung, 358),
     (sym_fbd_network, 360), (sym_c_style_comment, 3), (sym_pascal_style_comment, 3),
     (sym_pragma, 3)]"

lemma ts_parse_row_447_scan: "row_scan tokens_63_2 0 ts_parse_row_447 = Some (Suc (Suc (Suc (Suc 0))))"
  unfolding ts_parse_row_447_def by simp

text \<open>Lines 105833 to 105945.\<close>

definition ts_parse_row_448 :: parse_row where
  "ts_parse_row_448 =
    [(sym_ERR_assign_func_call, 7530), (sym_ERR_unexpected_this_in_path, 2372),
     (sym_ERR_unexpected_super_in_path, 2372), (sym_ERR_fb_variables_after_method, 1994),
     (sym_ERR_var_access_not_allowed, 3160), (sym_ERR_var_config_not_allowed, 3160),
     (sym_ERR_var_global_not_allowed, 3160), (sym_ERR_method_decl_in_body, 3150),
     (sym_extern_pragma, 7490), (sym_wasm_pragma, 3150), (sym_warn_pragma, 7490),
     (sym_allow_pragma, 3140), (sym_test_pragma, 7490), (sym_once_pragma, 7490),
     (sym_must_call_pragma, 7490), (sym_export_pragma, 7490), (sym_pou_pragma, 7194),
     (sym_direct_variable, 7675), (sym_deref_expression, 2373), (sym_variable, 7599),
     (sym_var_access, 2373), (sym_in_out_decls, 3160), (sym_var_decls, 3160),
     (sym_retain_var_decls, 3160), (sym_temp_var_decls, 3160), (sym_external_var_decls, 3160),
     (sym_global_var_decls, 2947), (sym_loc_partly_var_decl, 3160), (sym__fb_variables, 2343),
     (sym_fb_input_decls, 3160), (sym_fb_output_decls, 3160), (sym_no_retain_var_decls, 3160),
     (sym_fb_body, 9401), (sym_method_decl, 2549), (sym_prog_access_decls, 3043), (sym_SFC, 7970),
     (sym_SFC_network, 7612), (sym_initial_step, 7439), (sym_config_init, 3047),
     (sym_variable_access, 7530), (sym_func_call, 2961), (sym_stmt_list, 7970), (sym__stmt, 2024),
     (sym_assign, 3150), (sym_if_stmt, 3150), (sym_case_stmt, 3150), (sym_for_stmt, 3150),
     (sym_while_stmt, 3150), (sym_repeat_stmt, 3150), (sym_raise_stmt, 3150), (sym_try_stmt, 3150),
     (sym_ERR_clause_outside_try, 3150), (sym_begin_path_expression, 2943), (sym_invocation, 2934),
     (sym_any_invocation, 2935), (sym_this_invocation, 2641), (sym_super_invocation, 2641),
     (sym_super_body_invocation, 2935), (sym_path_expression, 2627), (sym_field_expression, 2373),
     (sym_index_expression, 2373), (sym_ladder_diagram, 7970), (sym_fb_diagram, 7970),
     (aux_sym_ERR_fb_variables_after_method_repeat1, 2343), (aux_sym_func_decl_repeat1, 7194),
     (aux_sym_fb_decl_repeat3, 2549), (aux_sym_SFC_repeat1, 7612),
     (aux_sym_stmt_list_repeat1, 2024), (aux_sym_ladder_diagram_repeat1, 8009),
     (aux_sym_fb_diagram_repeat1, 8013), (sym_identifier, 298),
     (aux_sym_ERR_unexpected_this_in_path_token1, 304),
     (aux_sym_ERR_unexpected_super_in_path_token1, 306), (sym_line_comment, 3),
     (anon_sym_LBRACE, 308), (aux_sym_test_pragma_token1, 9), (aux_sym_once_pragma_token1, 11),
     (aux_sym_must_call_pragma_token1, 13), (aux_sym_export_pragma_token1, 15),
     (anon_sym_SEMI, 310), (anon_sym_PERCENT, 312), (aux_sym_input_decls_token1, 314),
     (aux_sym_output_decls_token1, 316), (aux_sym_in_out_decls_token1, 318),
     (aux_sym_var_decls_token1, 320), (aux_sym_temp_var_decls_token1, 322),
     (aux_sym_external_var_decls_token1, 324), (aux_sym_global_var_decls_token1, 326),
     (aux_sym_fb_decl_token4, 1226), (aux_sym_method_decl_token1, 330),
     (aux_sym_prog_access_decls_token1, 332), (aux_sym_initial_step_token1, 334),
     (aux_sym_config_init_token1, 336), (aux_sym__stmt_token1, 340), (aux_sym__stmt_token2, 340),
     (aux_sym__stmt_token3, 340), (aux_sym_if_stmt_token1, 342), (aux_sym_case_stmt_token1, 344),
     (aux_sym_for_stmt_token1, 346), (aux_sym_while_stmt_token1, 348),
     (aux_sym_repeat_stmt_token1, 350), (aux_sym_raise_stmt_token1, 352),
     (aux_sym_try_stmt_token1, 354), (aux_sym_try_stmt_token2, 356),
     (aux_sym_catch_clause_token1, 356), (aux_sym_finally_clause_token1, 356), (sym_ld_rung, 358),
     (sym_fbd_network, 360), (sym_c_style_comment, 3), (sym_pascal_style_comment, 3),
     (sym_pragma, 3)]"

lemma ts_parse_row_448_scan: "row_scan tokens_63_2 0 ts_parse_row_448 = Some (Suc (Suc (Suc (Suc 0))))"
  unfolding ts_parse_row_448_def by simp

text \<open>Lines 105946 to 106058.\<close>

definition ts_parse_row_449 :: parse_row where
  "ts_parse_row_449 =
    [(sym_ERR_assign_func_call, 7530), (sym_ERR_unexpected_this_in_path, 2372),
     (sym_ERR_unexpected_super_in_path, 2372), (sym_ERR_fb_variables_after_method, 1346),
     (sym_ERR_var_access_not_allowed, 3160), (sym_ERR_var_config_not_allowed, 3160),
     (sym_ERR_var_global_not_allowed, 3160), (sym_ERR_method_decl_in_body, 3150),
     (sym_extern_pragma, 7490), (sym_wasm_pragma, 3150), (sym_warn_pragma, 7490),
     (sym_allow_pragma, 3140), (sym_test_pragma, 7490), (sym_once_pragma, 7490),
     (sym_must_call_pragma, 7490), (sym_export_pragma, 7490), (sym_pou_pragma, 7194),
     (sym_direct_variable, 7675), (sym_deref_expression, 2373), (sym_variable, 7599),
     (sym_var_access, 2373), (sym_in_out_decls, 3160), (sym_var_decls, 3160),
     (sym_retain_var_decls, 3160), (sym_temp_var_decls, 3160), (sym_external_var_decls, 3160),
     (sym_global_var_decls, 2947), (sym_loc_partly_var_decl, 3160), (sym__fb_variables, 2343),
     (sym_fb_input_decls, 3160), (sym_fb_output_decls, 3160), (sym_no_retain_var_decls, 3160),
     (sym_fb_body, 10478), (sym_method_decl, 2549), (sym_prog_access_decls, 3043), (sym_SFC, 7970),
     (sym_SFC_network, 7612), (sym_initial_step, 7439), (sym_config_init, 3047),
     (sym_variable_access, 7530), (sym_func_call, 2961), (sym_stmt_list, 7970), (sym__stmt, 2024),
     (sym_assign, 3150), (sym_if_stmt, 3150), (sym_case_stmt, 3150), (sym_for_stmt, 3150),
     (sym_while_stmt, 3150), (sym_repeat_stmt, 3150), (sym_raise_stmt, 3150), (sym_try_stmt, 3150),
     (sym_ERR_clause_outside_try, 3150), (sym_begin_path_expression, 2943), (sym_invocation, 2934),
     (sym_any_invocation, 2935), (sym_this_invocation, 2641), (sym_super_invocation, 2641),
     (sym_super_body_invocation, 2935), (sym_path_expression, 2627), (sym_field_expression, 2373),
     (sym_index_expression, 2373), (sym_ladder_diagram, 7970), (sym_fb_diagram, 7970),
     (aux_sym_ERR_fb_variables_after_method_repeat1, 2343), (aux_sym_func_decl_repeat1, 7194),
     (aux_sym_fb_decl_repeat3, 2549), (aux_sym_SFC_repeat1, 7612),
     (aux_sym_stmt_list_repeat1, 2024), (aux_sym_ladder_diagram_repeat1, 8009),
     (aux_sym_fb_diagram_repeat1, 8013), (sym_identifier, 298),
     (aux_sym_ERR_unexpected_this_in_path_token1, 304),
     (aux_sym_ERR_unexpected_super_in_path_token1, 306), (sym_line_comment, 3),
     (anon_sym_LBRACE, 308), (aux_sym_test_pragma_token1, 9), (aux_sym_once_pragma_token1, 11),
     (aux_sym_must_call_pragma_token1, 13), (aux_sym_export_pragma_token1, 15),
     (anon_sym_SEMI, 310), (anon_sym_PERCENT, 312), (aux_sym_input_decls_token1, 314),
     (aux_sym_output_decls_token1, 316), (aux_sym_in_out_decls_token1, 318),
     (aux_sym_var_decls_token1, 320), (aux_sym_temp_var_decls_token1, 322),
     (aux_sym_external_var_decls_token1, 324), (aux_sym_global_var_decls_token1, 326),
     (aux_sym_fb_decl_token4, 1228), (aux_sym_method_decl_token1, 330),
     (aux_sym_prog_access_decls_token1, 332), (aux_sym_initial_step_token1, 334),
     (aux_sym_config_init_token1, 336), (aux_sym__stmt_token1, 340), (aux_sym__stmt_token2, 340),
     (aux_sym__stmt_token3, 340), (aux_sym_if_stmt_token1, 342), (aux_sym_case_stmt_token1, 344),
     (aux_sym_for_stmt_token1, 346), (aux_sym_while_stmt_token1, 348),
     (aux_sym_repeat_stmt_token1, 350), (aux_sym_raise_stmt_token1, 352),
     (aux_sym_try_stmt_token1, 354), (aux_sym_try_stmt_token2, 356),
     (aux_sym_catch_clause_token1, 356), (aux_sym_finally_clause_token1, 356), (sym_ld_rung, 358),
     (sym_fbd_network, 360), (sym_c_style_comment, 3), (sym_pascal_style_comment, 3),
     (sym_pragma, 3)]"

lemma ts_parse_row_449_scan: "row_scan tokens_63_2 0 ts_parse_row_449 = Some (Suc (Suc (Suc (Suc 0))))"
  unfolding ts_parse_row_449_def by simp

definition parse_rows_3 :: "parse_row list" where
  "parse_rows_3 =
    [ts_parse_row_300, ts_parse_row_301, ts_parse_row_302, ts_parse_row_303, ts_parse_row_304,
     ts_parse_row_305, ts_parse_row_306, ts_parse_row_307, ts_parse_row_308, ts_parse_row_309,
     ts_parse_row_310, ts_parse_row_311, ts_parse_row_312, ts_parse_row_313, ts_parse_row_314,
     ts_parse_row_315, ts_parse_row_316, ts_parse_row_317, ts_parse_row_318, ts_parse_row_319,
     ts_parse_row_320, ts_parse_row_321, ts_parse_row_322, ts_parse_row_323, ts_parse_row_324,
     ts_parse_row_325, ts_parse_row_326, ts_parse_row_327, ts_parse_row_328, ts_parse_row_329,
     ts_parse_row_330, ts_parse_row_331, ts_parse_row_332, ts_parse_row_333, ts_parse_row_334,
     ts_parse_row_335, ts_parse_row_336, ts_parse_row_337, ts_parse_row_338, ts_parse_row_339,
     ts_parse_row_340, ts_parse_row_341, ts_parse_row_342, ts_parse_row_343, ts_parse_row_344,
     ts_parse_row_345, ts_parse_row_346, ts_parse_row_347, ts_parse_row_348, ts_parse_row_349,
     ts_parse_row_350, ts_parse_row_351, ts_parse_row_352, ts_parse_row_353, ts_parse_row_354,
     ts_parse_row_355, ts_parse_row_356, ts_parse_row_357, ts_parse_row_358, ts_parse_row_359,
     ts_parse_row_360, ts_parse_row_361, ts_parse_row_362, ts_parse_row_363, ts_parse_row_364,
     ts_parse_row_365, ts_parse_row_366, ts_parse_row_367, ts_parse_row_368, ts_parse_row_369,
     ts_parse_row_370, ts_parse_row_371, ts_parse_row_372, ts_parse_row_373, ts_parse_row_374,
     ts_parse_row_375, ts_parse_row_376, ts_parse_row_377, ts_parse_row_378, ts_parse_row_379,
     ts_parse_row_380, ts_parse_row_381, ts_parse_row_382, ts_parse_row_383, ts_parse_row_384,
     ts_parse_row_385, ts_parse_row_386, ts_parse_row_387, ts_parse_row_388, ts_parse_row_389,
     ts_parse_row_390, ts_parse_row_391, ts_parse_row_392, ts_parse_row_393, ts_parse_row_394,
     ts_parse_row_395, ts_parse_row_396, ts_parse_row_397, ts_parse_row_398, ts_parse_row_399,
     ts_parse_row_400, ts_parse_row_401, ts_parse_row_402, ts_parse_row_403, ts_parse_row_404,
     ts_parse_row_405, ts_parse_row_406, ts_parse_row_407, ts_parse_row_408, ts_parse_row_409,
     ts_parse_row_410, ts_parse_row_411, ts_parse_row_412, ts_parse_row_413, ts_parse_row_414,
     ts_parse_row_415, ts_parse_row_416, ts_parse_row_417, ts_parse_row_418, ts_parse_row_419,
     ts_parse_row_420, ts_parse_row_421, ts_parse_row_422, ts_parse_row_423, ts_parse_row_424,
     ts_parse_row_425, ts_parse_row_426, ts_parse_row_427, ts_parse_row_428, ts_parse_row_429,
     ts_parse_row_430, ts_parse_row_431, ts_parse_row_432, ts_parse_row_433, ts_parse_row_434,
     ts_parse_row_435, ts_parse_row_436, ts_parse_row_437, ts_parse_row_438, ts_parse_row_439,
     ts_parse_row_440, ts_parse_row_441, ts_parse_row_442, ts_parse_row_443, ts_parse_row_444,
     ts_parse_row_445, ts_parse_row_446, ts_parse_row_447, ts_parse_row_448, ts_parse_row_449]"

lemmas parse_rows_3_scan =
  ts_parse_row_300_scan ts_parse_row_301_scan ts_parse_row_302_scan ts_parse_row_303_scan
  ts_parse_row_304_scan ts_parse_row_305_scan ts_parse_row_306_scan ts_parse_row_307_scan
  ts_parse_row_308_scan ts_parse_row_309_scan ts_parse_row_310_scan ts_parse_row_311_scan
  ts_parse_row_312_scan ts_parse_row_313_scan ts_parse_row_314_scan ts_parse_row_315_scan
  ts_parse_row_316_scan ts_parse_row_317_scan ts_parse_row_318_scan ts_parse_row_319_scan
  ts_parse_row_320_scan ts_parse_row_321_scan ts_parse_row_322_scan ts_parse_row_323_scan
  ts_parse_row_324_scan ts_parse_row_325_scan ts_parse_row_326_scan ts_parse_row_327_scan
  ts_parse_row_328_scan ts_parse_row_329_scan ts_parse_row_330_scan ts_parse_row_331_scan
  ts_parse_row_332_scan ts_parse_row_333_scan ts_parse_row_334_scan ts_parse_row_335_scan
  ts_parse_row_336_scan ts_parse_row_337_scan ts_parse_row_338_scan ts_parse_row_339_scan
  ts_parse_row_340_scan ts_parse_row_341_scan ts_parse_row_342_scan ts_parse_row_343_scan
  ts_parse_row_344_scan ts_parse_row_345_scan ts_parse_row_346_scan ts_parse_row_347_scan
  ts_parse_row_348_scan ts_parse_row_349_scan ts_parse_row_350_scan ts_parse_row_351_scan
  ts_parse_row_352_scan ts_parse_row_353_scan ts_parse_row_354_scan ts_parse_row_355_scan
  ts_parse_row_356_scan ts_parse_row_357_scan ts_parse_row_358_scan ts_parse_row_359_scan
  ts_parse_row_360_scan ts_parse_row_361_scan ts_parse_row_362_scan ts_parse_row_363_scan
  ts_parse_row_364_scan ts_parse_row_365_scan ts_parse_row_366_scan ts_parse_row_367_scan
  ts_parse_row_368_scan ts_parse_row_369_scan ts_parse_row_370_scan ts_parse_row_371_scan
  ts_parse_row_372_scan ts_parse_row_373_scan ts_parse_row_374_scan ts_parse_row_375_scan
  ts_parse_row_376_scan ts_parse_row_377_scan ts_parse_row_378_scan ts_parse_row_379_scan
  ts_parse_row_380_scan ts_parse_row_381_scan ts_parse_row_382_scan ts_parse_row_383_scan
  ts_parse_row_384_scan ts_parse_row_385_scan ts_parse_row_386_scan ts_parse_row_387_scan
  ts_parse_row_388_scan ts_parse_row_389_scan ts_parse_row_390_scan ts_parse_row_391_scan
  ts_parse_row_392_scan ts_parse_row_393_scan ts_parse_row_394_scan ts_parse_row_395_scan
  ts_parse_row_396_scan ts_parse_row_397_scan ts_parse_row_398_scan ts_parse_row_399_scan
  ts_parse_row_400_scan ts_parse_row_401_scan ts_parse_row_402_scan ts_parse_row_403_scan
  ts_parse_row_404_scan ts_parse_row_405_scan ts_parse_row_406_scan ts_parse_row_407_scan
  ts_parse_row_408_scan ts_parse_row_409_scan ts_parse_row_410_scan ts_parse_row_411_scan
  ts_parse_row_412_scan ts_parse_row_413_scan ts_parse_row_414_scan ts_parse_row_415_scan
  ts_parse_row_416_scan ts_parse_row_417_scan ts_parse_row_418_scan ts_parse_row_419_scan
  ts_parse_row_420_scan ts_parse_row_421_scan ts_parse_row_422_scan ts_parse_row_423_scan
  ts_parse_row_424_scan ts_parse_row_425_scan ts_parse_row_426_scan ts_parse_row_427_scan
  ts_parse_row_428_scan ts_parse_row_429_scan ts_parse_row_430_scan ts_parse_row_431_scan
  ts_parse_row_432_scan ts_parse_row_433_scan ts_parse_row_434_scan ts_parse_row_435_scan
  ts_parse_row_436_scan ts_parse_row_437_scan ts_parse_row_438_scan ts_parse_row_439_scan
  ts_parse_row_440_scan ts_parse_row_441_scan ts_parse_row_442_scan ts_parse_row_443_scan
  ts_parse_row_444_scan ts_parse_row_445_scan ts_parse_row_446_scan ts_parse_row_447_scan
  ts_parse_row_448_scan ts_parse_row_449_scan

end
