(* ===== verification/Parse_Table_4.thy ===== *)
theory Parse_Table_4
  imports Parse_Cells
begin

text \<open>
  The rows 450 to 599 of \<open>ts_parse_table\<close> in \<open>src/crates/tree-sitter/src/parser.c\<close>, and the check of each
  against the tokens of its mode.
\<close>

text \<open>Lines 106059 to 106171.\<close>

definition ts_parse_row_450 :: parse_row where
  "ts_parse_row_450 =
    [(sym_ERR_assign_func_call, 7530), (sym_ERR_unexpected_this_in_path, 2372),
     (sym_ERR_unexpected_super_in_path, 2372), (sym_ERR_fb_variables_after_method, 1347),
     (sym_ERR_var_access_not_allowed, 3160), (sym_ERR_var_config_not_allowed, 3160),
     (sym_ERR_var_global_not_allowed, 3160), (sym_ERR_method_decl_in_body, 3150),
     (sym_extern_pragma, 7490), (sym_wasm_pragma, 3150), (sym_warn_pragma, 7490),
     (sym_allow_pragma, 3140), (sym_test_pragma, 7490), (sym_once_pragma, 7490),
     (sym_must_call_pragma, 7490), (sym_export_pragma, 7490), (sym_pou_pragma, 7194),
     (sym_direct_variable, 7675), (sym_deref_expression, 2373), (sym_variable, 7599),
     (sym_var_access, 2373), (sym_in_out_decls, 3160), (sym_var_decls, 3160),
     (sym_retain_var_decls, 3160), (sym_temp_var_decls, 3160), (sym_external_var_decls, 3160),
     (sym_global_var_decls, 2947), (sym_loc_partly_var_decl, 3160), (sym__fb_variables, 2347),
     (sym_fb_input_decls, 3160), (sym_fb_output_decls, 3160), (sym_no_retain_var_decls, 3160),
     (sym_fb_body, 10491), (sym_method_decl, 595), (sym_prog_access_decls, 3043), (sym_SFC, 7970),
     (sym_SFC_network, 7612), (sym_initial_step, 7439), (sym_config_init, 3047),
     (sym_variable_access, 7530), (sym_func_call, 2961), (sym_stmt_list, 7970), (sym__stmt, 2024),
     (sym_assign, 3150), (sym_if_stmt, 3150), (sym_case_stmt, 3150), (sym_for_stmt, 3150),
     (sym_while_stmt, 3150), (sym_repeat_stmt, 3150), (sym_raise_stmt, 3150), (sym_try_stmt, 3150),
     (sym_ERR_clause_outside_try, 3150), (sym_begin_path_expression, 2943), (sym_invocation, 2934),
     (sym_any_invocation, 2935), (sym_this_invocation, 2641), (sym_super_invocation, 2641),
     (sym_super_body_invocation, 2935), (sym_path_expression, 2627), (sym_field_expression, 2373),
     (sym_index_expression, 2373), (sym_ladder_diagram, 7970), (sym_fb_diagram, 7970),
     (aux_sym_ERR_fb_variables_after_method_repeat1, 2347), (aux_sym_func_decl_repeat1, 7194),
     (aux_sym_fb_decl_repeat3, 595), (aux_sym_SFC_repeat1, 7612), (aux_sym_stmt_list_repeat1, 2024),
     (aux_sym_ladder_diagram_repeat1, 8009), (aux_sym_fb_diagram_repeat1, 8013),
     (sym_identifier, 298), (aux_sym_ERR_unexpected_this_in_path_token1, 304),
     (aux_sym_ERR_unexpected_super_in_path_token1, 306), (sym_line_comment, 3),
     (anon_sym_LBRACE, 308), (aux_sym_test_pragma_token1, 9), (aux_sym_once_pragma_token1, 11),
     (aux_sym_must_call_pragma_token1, 13), (aux_sym_export_pragma_token1, 15),
     (anon_sym_SEMI, 310), (anon_sym_PERCENT, 312), (aux_sym_input_decls_token1, 314),
     (aux_sym_output_decls_token1, 316), (aux_sym_in_out_decls_token1, 318),
     (aux_sym_var_decls_token1, 320), (aux_sym_temp_var_decls_token1, 322),
     (aux_sym_external_var_decls_token1, 324), (aux_sym_global_var_decls_token1, 326),
     (aux_sym_fb_decl_token4, 1230), (aux_sym_method_decl_token1, 330),
     (aux_sym_prog_access_decls_token1, 332), (aux_sym_initial_step_token1, 334),
     (aux_sym_config_init_token1, 336), (aux_sym__stmt_token1, 340), (aux_sym__stmt_token2, 340),
     (aux_sym__stmt_token3, 340), (aux_sym_if_stmt_token1, 342), (aux_sym_case_stmt_token1, 344),
     (aux_sym_for_stmt_token1, 346), (aux_sym_while_stmt_token1, 348),
     (aux_sym_repeat_stmt_token1, 350), (aux_sym_raise_stmt_token1, 352),
     (aux_sym_try_stmt_token1, 354), (aux_sym_try_stmt_token2, 356),
     (aux_sym_catch_clause_token1, 356), (aux_sym_finally_clause_token1, 356), (sym_ld_rung, 358),
     (sym_fbd_network, 360), (sym_c_style_comment, 3), (sym_pascal_style_comment, 3),
     (sym_pragma, 3)]"

lemma ts_parse_row_450_scan: "row_scan tokens_63_2 0 ts_parse_row_450 = Some (Suc (Suc (Suc (Suc 0))))"
  unfolding ts_parse_row_450_def by simp

text \<open>Lines 106172 to 106284.\<close>

definition ts_parse_row_451 :: parse_row where
  "ts_parse_row_451 =
    [(sym_ERR_assign_func_call, 7530), (sym_ERR_unexpected_this_in_path, 2372),
     (sym_ERR_unexpected_super_in_path, 2372), (sym_ERR_fb_variables_after_method, 1348),
     (sym_ERR_var_access_not_allowed, 3160), (sym_ERR_var_config_not_allowed, 3160),
     (sym_ERR_var_global_not_allowed, 3160), (sym_ERR_method_decl_in_body, 3150),
     (sym_extern_pragma, 7490), (sym_wasm_pragma, 3150), (sym_warn_pragma, 7490),
     (sym_allow_pragma, 3140), (sym_test_pragma, 7490), (sym_once_pragma, 7490),
     (sym_must_call_pragma, 7490), (sym_export_pragma, 7490), (sym_pou_pragma, 7194),
     (sym_direct_variable, 7675), (sym_deref_expression, 2373), (sym_variable, 7599),
     (sym_var_access, 2373), (sym_in_out_decls, 3160), (sym_var_decls, 3160),
     (sym_retain_var_decls, 3160), (sym_temp_var_decls, 3160), (sym_external_var_decls, 3160),
     (sym_global_var_decls, 2947), (sym_loc_partly_var_decl, 3160), (sym__fb_variables, 2343),
     (sym_fb_input_decls, 3160), (sym_fb_output_decls, 3160), (sym_no_retain_var_decls, 3160),
     (sym_fb_body, 10502), (sym_method_decl, 2549), (sym_prog_access_decls, 3043), (sym_SFC, 7970),
     (sym_SFC_network, 7612), (sym_initial_step, 7439), (sym_config_init, 3047),
     (sym_variable_access, 7530), (sym_func_call, 2961), (sym_stmt_list, 7970), (sym__stmt, 2024),
     (sym_assign, 3150), (sym_if_stmt, 3150), (sym_case_stmt, 3150), (sym_for_stmt, 3150),
     (sym_while_stmt, 3150), (sym_repeat_stmt, 3150), (sym_raise_stmt, 3150), (sym_try_stmt, 3150),
     (sym_ERR_clause_outside_try, 3150), (sym_begin_path_expression, 2943), (sym_invocation, 2934),
     (sym_any_invocation, 2935), (sym_this_invocation, 2641), (sym_super_invocation, 2641),
     (sym_super_body_invocation, 2935), (sym_path_expression, 2627), (sym_field_expression, 2373),
     (sym_index_expression, 2373), (sym_ladder_diagram, 7970), (sym_fb_diagram, 7970),
     (aux_sym_ERR_fb_variables_after_method_repeat1, 2343), (aux_sym_func_decl_repeat1, 7194),
     (aux_sym_fb_decl_repeat3, 2549), (aux_sym_SFC_repeat1, 7612),
     (aux_sym_stmt_list_repeat1, 2024), (aux_sym_ladder_diagram_repeat1, 8009),
     (aux_sym_fb_diagram_repeat1, 8013), (sym_identifier, 298),
     (aux_sym_ERR_unexpected_this_in_path_token1, 304),
     (aux_sym_ERR_unexpected_super_in_path_token1, 306), (sym_line_comment, 3),
     (anon_sym_LBRACE, 308), (aux_sym_test_pragma_token1, 9), (aux_sym_once_pragma_token1, 11),
     (aux_sym_must_call_pragma_token1, 13), (aux_sym_export_pragma_token1, 15),
     (anon_sym_SEMI, 310), (anon_sym_PERCENT, 312), (aux_sym_input_decls_token1, 314),
     (aux_sym_output_decls_token1, 316), (aux_sym_in_out_decls_token1, 318),
     (aux_sym_var_decls_token1, 320), (aux_sym_temp_var_decls_token1, 322),
     (aux_sym_external_var_decls_token1, 324), (aux_sym_global_var_decls_token1, 326),
     (aux_sym_fb_decl_token4, 1232), (aux_sym_method_decl_token1, 330),
     (aux_sym_prog_access_decls_token1, 332), (aux_sym_initial_step_token1, 334),
     (aux_sym_config_init_token1, 336), (aux_sym__stmt_token1, 340), (aux_sym__stmt_token2, 340),
     (aux_sym__stmt_token3, 340), (aux_sym_if_stmt_token1, 342), (aux_sym_case_stmt_token1, 344),
     (aux_sym_for_stmt_token1, 346), (aux_sym_while_stmt_token1, 348),
     (aux_sym_repeat_stmt_token1, 350), (aux_sym_raise_stmt_token1, 352),
     (aux_sym_try_stmt_token1, 354), (aux_sym_try_stmt_token2, 356),
     (aux_sym_catch_clause_token1, 356), (aux_sym_finally_clause_token1, 356), (sym_ld_rung, 358),
     (sym_fbd_network, 360), (sym_c_style_comment, 3), (sym_pascal_style_comment, 3),
     (sym_pragma, 3)]"

lemma ts_parse_row_451_scan: "row_scan tokens_63_2 0 ts_parse_row_451 = Some (Suc (Suc (Suc (Suc 0))))"
  unfolding ts_parse_row_451_def by simp

text \<open>Lines 106285 to 106397.\<close>

definition ts_parse_row_452 :: parse_row where
  "ts_parse_row_452 =
    [(sym_ERR_assign_func_call, 7530), (sym_ERR_unexpected_this_in_path, 2372),
     (sym_ERR_unexpected_super_in_path, 2372), (sym_ERR_fb_variables_after_method, 1349),
     (sym_ERR_var_access_not_allowed, 3160), (sym_ERR_var_config_not_allowed, 3160),
     (sym_ERR_var_global_not_allowed, 3160), (sym_ERR_method_decl_in_body, 3150),
     (sym_extern_pragma, 7490), (sym_wasm_pragma, 3150), (sym_warn_pragma, 7490),
     (sym_allow_pragma, 3140), (sym_test_pragma, 7490), (sym_once_pragma, 7490),
     (sym_must_call_pragma, 7490), (sym_export_pragma, 7490), (sym_pou_pragma, 7194),
     (sym_direct_variable, 7675), (sym_deref_expression, 2373), (sym_variable, 7599),
     (sym_var_access, 2373), (sym_in_out_decls, 3160), (sym_var_decls, 3160),
     (sym_retain_var_decls, 3160), (sym_temp_var_decls, 3160), (sym_external_var_decls, 3160),
     (sym_global_var_decls, 2947), (sym_loc_partly_var_decl, 3160), (sym__fb_variables, 2347),
     (sym_fb_input_decls, 3160), (sym_fb_output_decls, 3160), (sym_no_retain_var_decls, 3160),
     (sym_fb_body, 10522), (sym_method_decl, 596), (sym_prog_access_decls, 3043), (sym_SFC, 7970),
     (sym_SFC_network, 7612), (sym_initial_step, 7439), (sym_config_init, 3047),
     (sym_variable_access, 7530), (sym_func_call, 2961), (sym_stmt_list, 7970), (sym__stmt, 2024),
     (sym_assign, 3150), (sym_if_stmt, 3150), (sym_case_stmt, 3150), (sym_for_stmt, 3150),
     (sym_while_stmt, 3150), (sym_repeat_stmt, 3150), (sym_raise_stmt, 3150), (sym_try_stmt, 3150),
     (sym_ERR_clause_outside_try, 3150), (sym_begin_path_expression, 2943), (sym_invocation, 2934),
     (sym_any_invocation, 2935), (sym_this_invocation, 2641), (sym_super_invocation, 2641),
     (sym_super_body_invocation, 2935), (sym_path_expression, 2627), (sym_field_expression, 2373),
     (sym_index_expression, 2373), (sym_ladder_diagram, 7970), (sym_fb_diagram, 7970),
     (aux_sym_ERR_fb_variables_after_method_repeat1, 2347), (aux_sym_func_decl_repeat1, 7194),
     (aux_sym_fb_decl_repeat3, 596), (aux_sym_SFC_repeat1, 7612), (aux_sym_stmt_list_repeat1, 2024),
     (aux_sym_ladder_diagram_repeat1, 8009), (aux_sym_fb_diagram_repeat1, 8013),
     (sym_identifier, 298), (aux_sym_ERR_unexpected_this_in_path_token1, 304),
     (aux_sym_ERR_unexpected_super_in_path_token1, 306), (sym_line_comment, 3),
     (anon_sym_LBRACE, 308), (aux_sym_test_pragma_token1, 9), (aux_sym_once_pragma_token1, 11),
     (aux_sym_must_call_pragma_token1, 13), (aux_sym_export_pragma_token1, 15),
     (anon_sym_SEMI, 310), (anon_sym_PERCENT, 312), (aux_sym_input_decls_token1, 314),
     (aux_sym_output_decls_token1, 316), (aux_sym_in_out_decls_token1, 318),
     (aux_sym_var_decls_token1, 320), (aux_sym_temp_var_decls_token1, 322),
     (aux_sym_external_var_decls_token1, 324), (aux_sym_global_var_decls_token1, 326),
     (aux_sym_fb_decl_token4, 1234), (aux_sym_method_decl_token1, 330),
     (aux_sym_prog_access_decls_token1, 332), (aux_sym_initial_step_token1, 334),
     (aux_sym_config_init_token1, 336), (aux_sym__stmt_token1, 340), (aux_sym__stmt_token2, 340),
     (aux_sym__stmt_token3, 340), (aux_sym_if_stmt_token1, 342), (aux_sym_case_stmt_token1, 344),
     (aux_sym_for_stmt_token1, 346), (aux_sym_while_stmt_token1, 348),
     (aux_sym_repeat_stmt_token1, 350), (aux_sym_raise_stmt_token1, 352),
     (aux_sym_try_stmt_token1, 354), (aux_sym_try_stmt_token2, 356),
     (aux_sym_catch_clause_token1, 356), (aux_sym_finally_clause_token1, 356), (sym_ld_rung, 358),
     (sym_fbd_network, 360), (sym_c_style_comment, 3), (sym_pascal_style_comment, 3),
     (sym_pragma, 3)]"

lemma ts_parse_row_452_scan: "row_scan tokens_63_2 0 ts_parse_row_452 = Some (Suc (Suc (Suc (Suc 0))))"
  unfolding ts_parse_row_452_def by simp

text \<open>Lines 106398 to 106510.\<close>

definition ts_parse_row_453 :: parse_row where
  "ts_parse_row_453 =
    [(sym_ERR_assign_func_call, 7530), (sym_ERR_unexpected_this_in_path, 2372),
     (sym_ERR_unexpected_super_in_path, 2372), (sym_ERR_fb_variables_after_method, 1560),
     (sym_ERR_var_access_not_allowed, 3160), (sym_ERR_var_config_not_allowed, 3160),
     (sym_ERR_var_global_not_allowed, 3160), (sym_ERR_method_decl_in_body, 3150),
     (sym_extern_pragma, 7490), (sym_wasm_pragma, 3150), (sym_warn_pragma, 7490),
     (sym_allow_pragma, 3140), (sym_test_pragma, 7490), (sym_once_pragma, 7490),
     (sym_must_call_pragma, 7490), (sym_export_pragma, 7490), (sym_pou_pragma, 7194),
     (sym_direct_variable, 7675), (sym_deref_expression, 2373), (sym_variable, 7599),
     (sym_var_access, 2373), (sym_in_out_decls, 3160), (sym_var_decls, 3160),
     (sym_retain_var_decls, 3160), (sym_temp_var_decls, 3160), (sym_external_var_decls, 3160),
     (sym_global_var_decls, 2947), (sym_loc_partly_var_decl, 3160), (sym__fb_variables, 2343),
     (sym_fb_input_decls, 3160), (sym_fb_output_decls, 3160), (sym_no_retain_var_decls, 3160),
     (sym_fb_body, 8666), (sym_method_decl, 2549), (sym_prog_access_decls, 3043), (sym_SFC, 7970),
     (sym_SFC_network, 7612), (sym_initial_step, 7439), (sym_config_init, 3047),
     (sym_variable_access, 7530), (sym_func_call, 2961), (sym_stmt_list, 7970), (sym__stmt, 2024),
     (sym_assign, 3150), (sym_if_stmt, 3150), (sym_case_stmt, 3150), (sym_for_stmt, 3150),
     (sym_while_stmt, 3150), (sym_repeat_stmt, 3150), (sym_raise_stmt, 3150), (sym_try_stmt, 3150),
     (sym_ERR_clause_outside_try, 3150), (sym_begin_path_expression, 2943), (sym_invocation, 2934),
     (sym_any_invocation, 2935), (sym_this_invocation, 2641), (sym_super_invocation, 2641),
     (sym_super_body_invocation, 2935), (sym_path_expression, 2627), (sym_field_expression, 2373),
     (sym_index_expression, 2373), (sym_ladder_diagram, 7970), (sym_fb_diagram, 7970),
     (aux_sym_ERR_fb_variables_after_method_repeat1, 2343), (aux_sym_func_decl_repeat1, 7194),
     (aux_sym_fb_decl_repeat3, 2549), (aux_sym_SFC_repeat1, 7612),
     (aux_sym_stmt_list_repeat1, 2024), (aux_sym_ladder_diagram_repeat1, 8009),
     (aux_sym_fb_diagram_repeat1, 8013), (sym_identifier, 298),
     (aux_sym_ERR_unexpected_this_in_path_token1, 304),
     (aux_sym_ERR_unexpected_super_in_path_token1, 306), (sym_line_comment, 3),
     (anon_sym_LBRACE, 308), (aux_sym_test_pragma_token1, 9), (aux_sym_once_pragma_token1, 11),
     (aux_sym_must_call_pragma_token1, 13), (aux_sym_export_pragma_token1, 15),
     (anon_sym_SEMI, 310), (anon_sym_PERCENT, 312), (aux_sym_input_decls_token1, 314),
     (aux_sym_output_decls_token1, 316), (aux_sym_in_out_decls_token1, 318),
     (aux_sym_var_decls_token1, 320), (aux_sym_temp_var_decls_token1, 322),
     (aux_sym_external_var_decls_token1, 324), (aux_sym_global_var_decls_token1, 326),
     (aux_sym_fb_decl_token4, 1236), (aux_sym_method_decl_token1, 330),
     (aux_sym_prog_access_decls_token1, 332), (aux_sym_initial_step_token1, 334),
     (aux_sym_config_init_token1, 336), (aux_sym__stmt_token1, 340), (aux_sym__stmt_token2, 340),
     (aux_sym__stmt_token3, 340), (aux_sym_if_stmt_token1, 342), (aux_sym_case_stmt_token1, 344),
     (aux_sym_for_stmt_token1, 346), (aux_sym_while_stmt_token1, 348),
     (aux_sym_repeat_stmt_token1, 350), (aux_sym_raise_stmt_token1, 352),
     (aux_sym_try_stmt_token1, 354), (aux_sym_try_stmt_token2, 356),
     (aux_sym_catch_clause_token1, 356), (aux_sym_finally_clause_token1, 356), (sym_ld_rung, 358),
     (sym_fbd_network, 360), (sym_c_style_comment, 3), (sym_pascal_style_comment, 3),
     (sym_pragma, 3)]"

lemma ts_parse_row_453_scan: "row_scan tokens_63_2 0 ts_parse_row_453 = Some (Suc (Suc (Suc (Suc 0))))"
  unfolding ts_parse_row_453_def by simp

text \<open>Lines 106511 to 106623.\<close>

definition ts_parse_row_454 :: parse_row where
  "ts_parse_row_454 =
    [(sym_ERR_assign_func_call, 7530), (sym_ERR_unexpected_this_in_path, 2372),
     (sym_ERR_unexpected_super_in_path, 2372), (sym_ERR_fb_variables_after_method, 1351),
     (sym_ERR_var_access_not_allowed, 3160), (sym_ERR_var_config_not_allowed, 3160),
     (sym_ERR_var_global_not_allowed, 3160), (sym_ERR_method_decl_in_body, 3150),
     (sym_extern_pragma, 7490), (sym_wasm_pragma, 3150), (sym_warn_pragma, 7490),
     (sym_allow_pragma, 3140), (sym_test_pragma, 7490), (sym_once_pragma, 7490),
     (sym_must_call_pragma, 7490), (sym_export_pragma, 7490), (sym_pou_pragma, 7194),
     (sym_direct_variable, 7675), (sym_deref_expression, 2373), (sym_variable, 7599),
     (sym_var_access, 2373), (sym_in_out_decls, 3160), (sym_var_decls, 3160),
     (sym_retain_var_decls, 3160), (sym_temp_var_decls, 3160), (sym_external_var_decls, 3160),
     (sym_global_var_decls, 2947), (sym_loc_partly_var_decl, 3160), (sym__fb_variables, 2343),
     (sym_fb_input_decls, 3160), (sym_fb_output_decls, 3160), (sym_no_retain_var_decls, 3160),
     (sym_fb_body, 10535), (sym_method_decl, 2549), (sym_prog_access_decls, 3043), (sym_SFC, 7970),
     (sym_SFC_network, 7612), (sym_initial_step, 7439), (sym_config_init, 3047),
     (sym_variable_access, 7530), (sym_func_call, 2961), (sym_stmt_list, 7970), (sym__stmt, 2024),
     (sym_assign, 3150), (sym_if_stmt, 3150), (sym_case_stmt, 3150), (sym_for_stmt, 3150),
     (sym_while_stmt, 3150), (sym_repeat_stmt, 3150), (sym_raise_stmt, 3150), (sym_try_stmt, 3150),
     (sym_ERR_clause_outside_try, 3150), (sym_begin_path_expression, 2943), (sym_invocation, 2934),
     (sym_any_invocation, 2935), (sym_this_invocation, 2641), (sym_super_invocation, 2641),
     (sym_super_body_invocation, 2935), (sym_path_expression, 2627), (sym_field_expression, 2373),
     (sym_index_expression, 2373), (sym_ladder_diagram, 7970), (sym_fb_diagram, 7970),
     (aux_sym_ERR_fb_variables_after_method_repeat1, 2343), (aux_sym_func_decl_repeat1, 7194),
     (aux_sym_fb_decl_repeat3, 2549), (aux_sym_SFC_repeat1, 7612),
     (aux_sym_stmt_list_repeat1, 2024), (aux_sym_ladder_diagram_repeat1, 8009),
     (aux_sym_fb_diagram_repeat1, 8013), (sym_identifier, 298),
     (aux_sym_ERR_unexpected_this_in_path_token1, 304),
     (aux_sym_ERR_unexpected_super_in_path_token1, 306), (sym_line_comment, 3),
     (anon_sym_LBRACE, 308), (aux_sym_test_pragma_token1, 9), (aux_sym_once_pragma_token1, 11),
     (aux_sym_must_call_pragma_token1, 13), (aux_sym_export_pragma_token1, 15),
     (anon_sym_SEMI, 310), (anon_sym_PERCENT, 312), (aux_sym_input_decls_token1, 314),
     (aux_sym_output_decls_token1, 316), (aux_sym_in_out_decls_token1, 318),
     (aux_sym_var_decls_token1, 320), (aux_sym_temp_var_decls_token1, 322),
     (aux_sym_external_var_decls_token1, 324), (aux_sym_global_var_decls_token1, 326),
     (aux_sym_fb_decl_token4, 1238), (aux_sym_method_decl_token1, 330),
     (aux_sym_prog_access_decls_token1, 332), (aux_sym_initial_step_token1, 334),
     (aux_sym_config_init_token1, 336), (aux_sym__stmt_token1, 340), (aux_sym__stmt_token2, 340),
     (aux_sym__stmt_token3, 340), (aux_sym_if_stmt_token1, 342), (aux_sym_case_stmt_token1, 344),
     (aux_sym_for_stmt_token1, 346), (aux_sym_while_stmt_token1, 348),
     (aux_sym_repeat_stmt_token1, 350), (aux_sym_raise_stmt_token1, 352),
     (aux_sym_try_stmt_token1, 354), (aux_sym_try_stmt_token2, 356),
     (aux_sym_catch_clause_token1, 356), (aux_sym_finally_clause_token1, 356), (sym_ld_rung, 358),
     (sym_fbd_network, 360), (sym_c_style_comment, 3), (sym_pascal_style_comment, 3),
     (sym_pragma, 3)]"

lemma ts_parse_row_454_scan: "row_scan tokens_63_2 0 ts_parse_row_454 = Some (Suc (Suc (Suc (Suc 0))))"
  unfolding ts_parse_row_454_def by simp

text \<open>Lines 106624 to 106736.\<close>

definition ts_parse_row_455 :: parse_row where
  "ts_parse_row_455 =
    [(sym_ERR_assign_func_call, 7530), (sym_ERR_unexpected_this_in_path, 2372),
     (sym_ERR_unexpected_super_in_path, 2372), (sym_ERR_fb_variables_after_method, 1352),
     (sym_ERR_var_access_not_allowed, 3160), (sym_ERR_var_config_not_allowed, 3160),
     (sym_ERR_var_global_not_allowed, 3160), (sym_ERR_method_decl_in_body, 3150),
     (sym_extern_pragma, 7490), (sym_wasm_pragma, 3150), (sym_warn_pragma, 7490),
     (sym_allow_pragma, 3140), (sym_test_pragma, 7490), (sym_once_pragma, 7490),
     (sym_must_call_pragma, 7490), (sym_export_pragma, 7490), (sym_pou_pragma, 7194),
     (sym_direct_variable, 7675), (sym_deref_expression, 2373), (sym_variable, 7599),
     (sym_var_access, 2373), (sym_in_out_decls, 3160), (sym_var_decls, 3160),
     (sym_retain_var_decls, 3160), (sym_temp_var_decls, 3160), (sym_external_var_decls, 3160),
     (sym_global_var_decls, 2947), (sym_loc_partly_var_decl, 3160), (sym__fb_variables, 2343),
     (sym_fb_input_decls, 3160), (sym_fb_output_decls, 3160), (sym_no_retain_var_decls, 3160),
     (sym_fb_body, 9689), (sym_method_decl, 2549), (sym_prog_access_decls, 3043), (sym_SFC, 7970),
     (sym_SFC_network, 7612), (sym_initial_step, 7439), (sym_config_init, 3047),
     (sym_variable_access, 7530), (sym_func_call, 2961), (sym_stmt_list, 7970), (sym__stmt, 2024),
     (sym_assign, 3150), (sym_if_stmt, 3150), (sym_case_stmt, 3150), (sym_for_stmt, 3150),
     (sym_while_stmt, 3150), (sym_repeat_stmt, 3150), (sym_raise_stmt, 3150), (sym_try_stmt, 3150),
     (sym_ERR_clause_outside_try, 3150), (sym_begin_path_expression, 2943), (sym_invocation, 2934),
     (sym_any_invocation, 2935), (sym_this_invocation, 2641), (sym_super_invocation, 2641),
     (sym_super_body_invocation, 2935), (sym_path_expression, 2627), (sym_field_expression, 2373),
     (sym_index_expression, 2373), (sym_ladder_diagram, 7970), (sym_fb_diagram, 7970),
     (aux_sym_ERR_fb_variables_after_method_repeat1, 2343), (aux_sym_func_decl_repeat1, 7194),
     (aux_sym_fb_decl_repeat3, 2549), (aux_sym_SFC_repeat1, 7612),
     (aux_sym_stmt_list_repeat1, 2024), (aux_sym_ladder_diagram_repeat1, 8009),
     (aux_sym_fb_diagram_repeat1, 8013), (sym_identifier, 298),
     (aux_sym_ERR_unexpected_this_in_path_token1, 304),
     (aux_sym_ERR_unexpected_super_in_path_token1, 306), (sym_line_comment, 3),
     (anon_sym_LBRACE, 308), (aux_sym_test_pragma_token1, 9), (aux_sym_once_pragma_token1, 11),
     (aux_sym_must_call_pragma_token1, 13), (aux_sym_export_pragma_token1, 15),
     (anon_sym_SEMI, 310), (anon_sym_PERCENT, 312), (aux_sym_input_decls_token1, 314),
     (aux_sym_output_decls_token1, 316), (aux_sym_in_out_decls_token1, 318),
     (aux_sym_var_decls_token1, 320), (aux_sym_temp_var_decls_token1, 322),
     (aux_sym_external_var_decls_token1, 324), (aux_sym_global_var_decls_token1, 326),
     (aux_sym_fb_decl_token4, 1240), (aux_sym_method_decl_token1, 330),
     (aux_sym_prog_access_decls_token1, 332), (aux_sym_initial_step_token1, 334),
     (aux_sym_config_init_token1, 336), (aux_sym__stmt_token1, 340), (aux_sym__stmt_token2, 340),
     (aux_sym__stmt_token3, 340), (aux_sym_if_stmt_token1, 342), (aux_sym_case_stmt_token1, 344),
     (aux_sym_for_stmt_token1, 346), (aux_sym_while_stmt_token1, 348),
     (aux_sym_repeat_stmt_token1, 350), (aux_sym_raise_stmt_token1, 352),
     (aux_sym_try_stmt_token1, 354), (aux_sym_try_stmt_token2, 356),
     (aux_sym_catch_clause_token1, 356), (aux_sym_finally_clause_token1, 356), (sym_ld_rung, 358),
     (sym_fbd_network, 360), (sym_c_style_comment, 3), (sym_pascal_style_comment, 3),
     (sym_pragma, 3)]"

lemma ts_parse_row_455_scan: "row_scan tokens_63_2 0 ts_parse_row_455 = Some (Suc (Suc (Suc (Suc 0))))"
  unfolding ts_parse_row_455_def by simp

text \<open>Lines 106737 to 106849.\<close>

definition ts_parse_row_456 :: parse_row where
  "ts_parse_row_456 =
    [(sym_ERR_assign_func_call, 7530), (sym_ERR_unexpected_this_in_path, 2372),
     (sym_ERR_unexpected_super_in_path, 2372), (sym_ERR_fb_variables_after_method, 1353),
     (sym_ERR_var_access_not_allowed, 3160), (sym_ERR_var_config_not_allowed, 3160),
     (sym_ERR_var_global_not_allowed, 3160), (sym_ERR_method_decl_in_body, 3150),
     (sym_extern_pragma, 7490), (sym_wasm_pragma, 3150), (sym_warn_pragma, 7490),
     (sym_allow_pragma, 3140), (sym_test_pragma, 7490), (sym_once_pragma, 7490),
     (sym_must_call_pragma, 7490), (sym_export_pragma, 7490), (sym_pou_pragma, 7194),
     (sym_direct_variable, 7675), (sym_deref_expression, 2373), (sym_variable, 7599),
     (sym_var_access, 2373), (sym_in_out_decls, 3160), (sym_var_decls, 3160),
     (sym_retain_var_decls, 3160), (sym_temp_var_decls, 3160), (sym_external_var_decls, 3160),
     (sym_global_var_decls, 2947), (sym_loc_partly_var_decl, 3160), (sym__fb_variables, 2347),
     (sym_fb_input_decls, 3160), (sym_fb_output_decls, 3160), (sym_no_retain_var_decls, 3160),
     (sym_fb_body, 10455), (sym_method_decl, 599), (sym_prog_access_decls, 3043), (sym_SFC, 7970),
     (sym_SFC_network, 7612), (sym_initial_step, 7439), (sym_config_init, 3047),
     (sym_variable_access, 7530), (sym_func_call, 2961), (sym_stmt_list, 7970), (sym__stmt, 2024),
     (sym_assign, 3150), (sym_if_stmt, 3150), (sym_case_stmt, 3150), (sym_for_stmt, 3150),
     (sym_while_stmt, 3150), (sym_repeat_stmt, 3150), (sym_raise_stmt, 3150), (sym_try_stmt, 3150),
     (sym_ERR_clause_outside_try, 3150), (sym_begin_path_expression, 2943), (sym_invocation, 2934),
     (sym_any_invocation, 2935), (sym_this_invocation, 2641), (sym_super_invocation, 2641),
     (sym_super_body_invocation, 2935), (sym_path_expression, 2627), (sym_field_expression, 2373),
     (sym_index_expression, 2373), (sym_ladder_diagram, 7970), (sym_fb_diagram, 7970),
     (aux_sym_ERR_fb_variables_after_method_repeat1, 2347), (aux_sym_func_decl_repeat1, 7194),
     (aux_sym_fb_decl_repeat3, 599), (aux_sym_SFC_repeat1, 7612), (aux_sym_stmt_list_repeat1, 2024),
     (aux_sym_ladder_diagram_repeat1, 8009), (aux_sym_fb_diagram_repeat1, 8013),
     (sym_identifier, 298), (aux_sym_ERR_unexpected_this_in_path_token1, 304),
     (aux_sym_ERR_unexpected_super_in_path_token1, 306), (sym_line_comment, 3),
     (anon_sym_LBRACE, 308), (aux_sym_test_pragma_token1, 9), (aux_sym_once_pragma_token1, 11),
     (aux_sym_must_call_pragma_token1, 13), (aux_sym_export_pragma_token1, 15),
     (anon_sym_SEMI, 310), (anon_sym_PERCENT, 312), (aux_sym_input_decls_token1, 314),
     (aux_sym_output_decls_token1, 316), (aux_sym_in_out_decls_token1, 318),
     (aux_sym_var_decls_token1, 320), (aux_sym_temp_var_decls_token1, 322),
     (aux_sym_external_var_decls_token1, 324), (aux_sym_global_var_decls_token1, 326),
     (aux_sym_fb_decl_token4, 1242), (aux_sym_method_decl_token1, 330),
     (aux_sym_prog_access_decls_token1, 332), (aux_sym_initial_step_token1, 334),
     (aux_sym_config_init_token1, 336), (aux_sym__stmt_token1, 340), (aux_sym__stmt_token2, 340),
     (aux_sym__stmt_token3, 340), (aux_sym_if_stmt_token1, 342), (aux_sym_case_stmt_token1, 344),
     (aux_sym_for_stmt_token1, 346), (aux_sym_while_stmt_token1, 348),
     (aux_sym_repeat_stmt_token1, 350), (aux_sym_raise_stmt_token1, 352),
     (aux_sym_try_stmt_token1, 354), (aux_sym_try_stmt_token2, 356),
     (aux_sym_catch_clause_token1, 356), (aux_sym_finally_clause_token1, 356), (sym_ld_rung, 358),
     (sym_fbd_network, 360), (sym_c_style_comment, 3), (sym_pascal_style_comment, 3),
     (sym_pragma, 3)]"

lemma ts_parse_row_456_scan: "row_scan tokens_63_2 0 ts_parse_row_456 = Some (Suc (Suc (Suc (Suc 0))))"
  unfolding ts_parse_row_456_def by simp

text \<open>Lines 106850 to 106962.\<close>

definition ts_parse_row_457 :: parse_row where
  "ts_parse_row_457 =
    [(sym_ERR_assign_func_call, 7530), (sym_ERR_unexpected_this_in_path, 2372),
     (sym_ERR_unexpected_super_in_path, 2372), (sym_ERR_fb_variables_after_method, 1354),
     (sym_ERR_var_access_not_allowed, 3160), (sym_ERR_var_config_not_allowed, 3160),
     (sym_ERR_var_global_not_allowed, 3160), (sym_ERR_method_decl_in_body, 3150),
     (sym_extern_pragma, 7490), (sym_wasm_pragma, 3150), (sym_warn_pragma, 7490),
     (sym_allow_pragma, 3140), (sym_test_pragma, 7490), (sym_once_pragma, 7490),
     (sym_must_call_pragma, 7490), (sym_export_pragma, 7490), (sym_pou_pragma, 7194),
     (sym_direct_variable, 7675), (sym_deref_expression, 2373), (sym_variable, 7599),
     (sym_var_access, 2373), (sym_in_out_decls, 3160), (sym_var_decls, 3160),
     (sym_retain_var_decls, 3160), (sym_temp_var_decls, 3160), (sym_external_var_decls, 3160),
     (sym_global_var_decls, 2947), (sym_loc_partly_var_decl, 3160), (sym__fb_variables, 2343),
     (sym_fb_input_decls, 3160), (sym_fb_output_decls, 3160), (sym_no_retain_var_decls, 3160),
     (sym_fb_body, 8616), (sym_method_decl, 2549), (sym_prog_access_decls, 3043), (sym_SFC, 7970),
     (sym_SFC_network, 7612), (sym_initial_step, 7439), (sym_config_init, 3047),
     (sym_variable_access, 7530), (sym_func_call, 2961), (sym_stmt_list, 7970), (sym__stmt, 2024),
     (sym_assign, 3150), (sym_if_stmt, 3150), (sym_case_stmt, 3150), (sym_for_stmt, 3150),
     (sym_while_stmt, 3150), (sym_repeat_stmt, 3150), (sym_raise_stmt, 3150), (sym_try_stmt, 3150),
     (sym_ERR_clause_outside_try, 3150), (sym_begin_path_expression, 2943), (sym_invocation, 2934),
     (sym_any_invocation, 2935), (sym_this_invocation, 2641), (sym_super_invocation, 2641),
     (sym_super_body_invocation, 2935), (sym_path_expression, 2627), (sym_field_expression, 2373),
     (sym_index_expression, 2373), (sym_ladder_diagram, 7970), (sym_fb_diagram, 7970),
     (aux_sym_ERR_fb_variables_after_method_repeat1, 2343), (aux_sym_func_decl_repeat1, 7194),
     (aux_sym_fb_decl_repeat3, 2549), (aux_sym_SFC_repeat1, 7612),
     (aux_sym_stmt_list_repeat1, 2024), (aux_sym_ladder_diagram_repeat1, 8009),
     (aux_sym_fb_diagram_repeat1, 8013), (sym_identifier, 298),
     (aux_sym_ERR_unexpected_this_in_path_token1, 304),
     (aux_sym_ERR_unexpected_super_in_path_token1, 306), (sym_line_comment, 3),
     (anon_sym_LBRACE, 308), (aux_sym_test_pragma_token1, 9), (aux_sym_once_pragma_token1, 11),
     (aux_sym_must_call_pragma_token1, 13), (aux_sym_export_pragma_token1, 15),
     (anon_sym_SEMI, 310), (anon_sym_PERCENT, 312), (aux_sym_input_decls_token1, 314),
     (aux_sym_output_decls_token1, 316), (aux_sym_in_out_decls_token1, 318),
     (aux_sym_var_decls_token1, 320), (aux_sym_temp_var_decls_token1, 322),
     (aux_sym_external_var_decls_token1, 324), (aux_sym_global_var_decls_token1, 326),
     (aux_sym_fb_decl_token4, 1244), (aux_sym_method_decl_token1, 330),
     (aux_sym_prog_access_decls_token1, 332), (aux_sym_initial_step_token1, 334),
     (aux_sym_config_init_token1, 336), (aux_sym__stmt_token1, 340), (aux_sym__stmt_token2, 340),
     (aux_sym__stmt_token3, 340), (aux_sym_if_stmt_token1, 342), (aux_sym_case_stmt_token1, 344),
     (aux_sym_for_stmt_token1, 346), (aux_sym_while_stmt_token1, 348),
     (aux_sym_repeat_stmt_token1, 350), (aux_sym_raise_stmt_token1, 352),
     (aux_sym_try_stmt_token1, 354), (aux_sym_try_stmt_token2, 356),
     (aux_sym_catch_clause_token1, 356), (aux_sym_finally_clause_token1, 356), (sym_ld_rung, 358),
     (sym_fbd_network, 360), (sym_c_style_comment, 3), (sym_pascal_style_comment, 3),
     (sym_pragma, 3)]"

lemma ts_parse_row_457_scan: "row_scan tokens_63_2 0 ts_parse_row_457 = Some (Suc (Suc (Suc (Suc 0))))"
  unfolding ts_parse_row_457_def by simp

text \<open>Lines 106963 to 107075.\<close>

definition ts_parse_row_458 :: parse_row where
  "ts_parse_row_458 =
    [(sym_ERR_assign_func_call, 7530), (sym_ERR_unexpected_this_in_path, 2372),
     (sym_ERR_unexpected_super_in_path, 2372), (sym_ERR_fb_variables_after_method, 1355),
     (sym_ERR_var_access_not_allowed, 3160), (sym_ERR_var_config_not_allowed, 3160),
     (sym_ERR_var_global_not_allowed, 3160), (sym_ERR_method_decl_in_body, 3150),
     (sym_extern_pragma, 7490), (sym_wasm_pragma, 3150), (sym_warn_pragma, 7490),
     (sym_allow_pragma, 3140), (sym_test_pragma, 7490), (sym_once_pragma, 7490),
     (sym_must_call_pragma, 7490), (sym_export_pragma, 7490), (sym_pou_pragma, 7194),
     (sym_direct_variable, 7675), (sym_deref_expression, 2373), (sym_variable, 7599),
     (sym_var_access, 2373), (sym_in_out_decls, 3160), (sym_var_decls, 3160),
     (sym_retain_var_decls, 3160), (sym_temp_var_decls, 3160), (sym_external_var_decls, 3160),
     (sym_global_var_decls, 2947), (sym_loc_partly_var_decl, 3160), (sym__fb_variables, 2347),
     (sym_fb_input_decls, 3160), (sym_fb_output_decls, 3160), (sym_no_retain_var_decls, 3160),
     (sym_fb_body, 9393), (sym_method_decl, 600), (sym_prog_access_decls, 3043), (sym_SFC, 7970),
     (sym_SFC_network, 7612), (sym_initial_step, 7439), (sym_config_init, 3047),
     (sym_variable_access, 7530), (sym_func_call, 2961), (sym_stmt_list, 7970), (sym__stmt, 2024),
     (sym_assign, 3150), (sym_if_stmt, 3150), (sym_case_stmt, 3150), (sym_for_stmt, 3150),
     (sym_while_stmt, 3150), (sym_repeat_stmt, 3150), (sym_raise_stmt, 3150), (sym_try_stmt, 3150),
     (sym_ERR_clause_outside_try, 3150), (sym_begin_path_expression, 2943), (sym_invocation, 2934),
     (sym_any_invocation, 2935), (sym_this_invocation, 2641), (sym_super_invocation, 2641),
     (sym_super_body_invocation, 2935), (sym_path_expression, 2627), (sym_field_expression, 2373),
     (sym_index_expression, 2373), (sym_ladder_diagram, 7970), (sym_fb_diagram, 7970),
     (aux_sym_ERR_fb_variables_after_method_repeat1, 2347), (aux_sym_func_decl_repeat1, 7194),
     (aux_sym_fb_decl_repeat3, 600), (aux_sym_SFC_repeat1, 7612), (aux_sym_stmt_list_repeat1, 2024),
     (aux_sym_ladder_diagram_repeat1, 8009), (aux_sym_fb_diagram_repeat1, 8013),
     (sym_identifier, 298), (aux_sym_ERR_unexpected_this_in_path_token1, 304),
     (aux_sym_ERR_unexpected_super_in_path_token1, 306), (sym_line_comment, 3),
     (anon_sym_LBRACE, 308), (aux_sym_test_pragma_token1, 9), (aux_sym_once_pragma_token1, 11),
     (aux_sym_must_call_pragma_token1, 13), (aux_sym_export_pragma_token1, 15),
     (anon_sym_SEMI, 310), (anon_sym_PERCENT, 312), (aux_sym_input_decls_token1, 314),
     (aux_sym_output_decls_token1, 316), (aux_sym_in_out_decls_token1, 318),
     (aux_sym_var_decls_token1, 320), (aux_sym_temp_var_decls_token1, 322),
     (aux_sym_external_var_decls_token1, 324), (aux_sym_global_var_decls_token1, 326),
     (aux_sym_fb_decl_token4, 1246), (aux_sym_method_decl_token1, 330),
     (aux_sym_prog_access_decls_token1, 332), (aux_sym_initial_step_token1, 334),
     (aux_sym_config_init_token1, 336), (aux_sym__stmt_token1, 340), (aux_sym__stmt_token2, 340),
     (aux_sym__stmt_token3, 340), (aux_sym_if_stmt_token1, 342), (aux_sym_case_stmt_token1, 344),
     (aux_sym_for_stmt_token1, 346), (aux_sym_while_stmt_token1, 348),
     (aux_sym_repeat_stmt_token1, 350), (aux_sym_raise_stmt_token1, 352),
     (aux_sym_try_stmt_token1, 354), (aux_sym_try_stmt_token2, 356),
     (aux_sym_catch_clause_token1, 356), (aux_sym_finally_clause_token1, 356), (sym_ld_rung, 358),
     (sym_fbd_network, 360), (sym_c_style_comment, 3), (sym_pascal_style_comment, 3),
     (sym_pragma, 3)]"

lemma ts_parse_row_458_scan: "row_scan tokens_63_2 0 ts_parse_row_458 = Some (Suc (Suc (Suc (Suc 0))))"
  unfolding ts_parse_row_458_def by simp

text \<open>Lines 107076 to 107188.\<close>

definition ts_parse_row_459 :: parse_row where
  "ts_parse_row_459 =
    [(sym_ERR_assign_func_call, 7530), (sym_ERR_unexpected_this_in_path, 2372),
     (sym_ERR_unexpected_super_in_path, 2372), (sym_ERR_fb_variables_after_method, 1563),
     (sym_ERR_var_access_not_allowed, 3160), (sym_ERR_var_config_not_allowed, 3160),
     (sym_ERR_var_global_not_allowed, 3160), (sym_ERR_method_decl_in_body, 3150),
     (sym_extern_pragma, 7490), (sym_wasm_pragma, 3150), (sym_warn_pragma, 7490),
     (sym_allow_pragma, 3140), (sym_test_pragma, 7490), (sym_once_pragma, 7490),
     (sym_must_call_pragma, 7490), (sym_export_pragma, 7490), (sym_pou_pragma, 7194),
     (sym_direct_variable, 7675), (sym_deref_expression, 2373), (sym_variable, 7599),
     (sym_var_access, 2373), (sym_in_out_decls, 3160), (sym_var_decls, 3160),
     (sym_retain_var_decls, 3160), (sym_temp_var_decls, 3160), (sym_external_var_decls, 3160),
     (sym_global_var_decls, 2947), (sym_loc_partly_var_decl, 3160), (sym__fb_variables, 2347),
     (sym_fb_input_decls, 3160), (sym_fb_output_decls, 3160), (sym_no_retain_var_decls, 3160),
     (sym_fb_body, 8680), (sym_method_decl, 332), (sym_prog_access_decls, 3043), (sym_SFC, 7970),
     (sym_SFC_network, 7612), (sym_initial_step, 7439), (sym_config_init, 3047),
     (sym_variable_access, 7530), (sym_func_call, 2961), (sym_stmt_list, 7970), (sym__stmt, 2024),
     (sym_assign, 3150), (sym_if_stmt, 3150), (sym_case_stmt, 3150), (sym_for_stmt, 3150),
     (sym_while_stmt, 3150), (sym_repeat_stmt, 3150), (sym_raise_stmt, 3150), (sym_try_stmt, 3150),
     (sym_ERR_clause_outside_try, 3150), (sym_begin_path_expression, 2943), (sym_invocation, 2934),
     (sym_any_invocation, 2935), (sym_this_invocation, 2641), (sym_super_invocation, 2641),
     (sym_super_body_invocation, 2935), (sym_path_expression, 2627), (sym_field_expression, 2373),
     (sym_index_expression, 2373), (sym_ladder_diagram, 7970), (sym_fb_diagram, 7970),
     (aux_sym_ERR_fb_variables_after_method_repeat1, 2347), (aux_sym_func_decl_repeat1, 7194),
     (aux_sym_fb_decl_repeat3, 332), (aux_sym_SFC_repeat1, 7612), (aux_sym_stmt_list_repeat1, 2024),
     (aux_sym_ladder_diagram_repeat1, 8009), (aux_sym_fb_diagram_repeat1, 8013),
     (sym_identifier, 298), (aux_sym_ERR_unexpected_this_in_path_token1, 304),
     (aux_sym_ERR_unexpected_super_in_path_token1, 306), (sym_line_comment, 3),
     (anon_sym_LBRACE, 308), (aux_sym_test_pragma_token1, 9), (aux_sym_once_pragma_token1, 11),
     (aux_sym_must_call_pragma_token1, 13), (aux_sym_export_pragma_token1, 15),
     (anon_sym_SEMI, 310), (anon_sym_PERCENT, 312), (aux_sym_input_decls_token1, 314),
     (aux_sym_output_decls_token1, 316), (aux_sym_in_out_decls_token1, 318),
     (aux_sym_var_decls_token1, 320), (aux_sym_temp_var_decls_token1, 322),
     (aux_sym_external_var_decls_token1, 324), (aux_sym_global_var_decls_token1, 326),
     (aux_sym_fb_decl_token4, 1248), (aux_sym_method_decl_token1, 330),
     (aux_sym_prog_access_decls_token1, 332), (aux_sym_initial_step_token1, 334),
     (aux_sym_config_init_token1, 336), (aux_sym__stmt_token1, 340), (aux_sym__stmt_token2, 340),
     (aux_sym__stmt_token3, 340), (aux_sym_if_stmt_token1, 342), (aux_sym_case_stmt_token1, 344),
     (aux_sym_for_stmt_token1, 346), (aux_sym_while_stmt_token1, 348),
     (aux_sym_repeat_stmt_token1, 350), (aux_sym_raise_stmt_token1, 352),
     (aux_sym_try_stmt_token1, 354), (aux_sym_try_stmt_token2, 356),
     (aux_sym_catch_clause_token1, 356), (aux_sym_finally_clause_token1, 356), (sym_ld_rung, 358),
     (sym_fbd_network, 360), (sym_c_style_comment, 3), (sym_pascal_style_comment, 3),
     (sym_pragma, 3)]"

lemma ts_parse_row_459_scan: "row_scan tokens_63_2 0 ts_parse_row_459 = Some (Suc (Suc (Suc (Suc 0))))"
  unfolding ts_parse_row_459_def by simp

text \<open>Lines 107189 to 107301.\<close>

definition ts_parse_row_460 :: parse_row where
  "ts_parse_row_460 =
    [(sym_ERR_assign_func_call, 7530), (sym_ERR_unexpected_this_in_path, 2372),
     (sym_ERR_unexpected_super_in_path, 2372), (sym_ERR_fb_variables_after_method, 1357),
     (sym_ERR_var_access_not_allowed, 3160), (sym_ERR_var_config_not_allowed, 3160),
     (sym_ERR_var_global_not_allowed, 3160), (sym_ERR_method_decl_in_body, 3150),
     (sym_extern_pragma, 7490), (sym_wasm_pragma, 3150), (sym_warn_pragma, 7490),
     (sym_allow_pragma, 3140), (sym_test_pragma, 7490), (sym_once_pragma, 7490),
     (sym_must_call_pragma, 7490), (sym_export_pragma, 7490), (sym_pou_pragma, 7194),
     (sym_direct_variable, 7675), (sym_deref_expression, 2373), (sym_variable, 7599),
     (sym_var_access, 2373), (sym_in_out_decls, 3160), (sym_var_decls, 3160),
     (sym_retain_var_decls, 3160), (sym_temp_var_decls, 3160), (sym_external_var_decls, 3160),
     (sym_global_var_decls, 2947), (sym_loc_partly_var_decl, 3160), (sym__fb_variables, 2343),
     (sym_fb_input_decls, 3160), (sym_fb_output_decls, 3160), (sym_no_retain_var_decls, 3160),
     (sym_fb_body, 9836), (sym_method_decl, 2549), (sym_prog_access_decls, 3043), (sym_SFC, 7970),
     (sym_SFC_network, 7612), (sym_initial_step, 7439), (sym_config_init, 3047),
     (sym_variable_access, 7530), (sym_func_call, 2961), (sym_stmt_list, 7970), (sym__stmt, 2024),
     (sym_assign, 3150), (sym_if_stmt, 3150), (sym_case_stmt, 3150), (sym_for_stmt, 3150),
     (sym_while_stmt, 3150), (sym_repeat_stmt, 3150), (sym_raise_stmt, 3150), (sym_try_stmt, 3150),
     (sym_ERR_clause_outside_try, 3150), (sym_begin_path_expression, 2943), (sym_invocation, 2934),
     (sym_any_invocation, 2935), (sym_this_invocation, 2641), (sym_super_invocation, 2641),
     (sym_super_body_invocation, 2935), (sym_path_expression, 2627), (sym_field_expression, 2373),
     (sym_index_expression, 2373), (sym_ladder_diagram, 7970), (sym_fb_diagram, 7970),
     (aux_sym_ERR_fb_variables_after_method_repeat1, 2343), (aux_sym_func_decl_repeat1, 7194),
     (aux_sym_fb_decl_repeat3, 2549), (aux_sym_SFC_repeat1, 7612),
     (aux_sym_stmt_list_repeat1, 2024), (aux_sym_ladder_diagram_repeat1, 8009),
     (aux_sym_fb_diagram_repeat1, 8013), (sym_identifier, 298),
     (aux_sym_ERR_unexpected_this_in_path_token1, 304),
     (aux_sym_ERR_unexpected_super_in_path_token1, 306), (sym_line_comment, 3),
     (anon_sym_LBRACE, 308), (aux_sym_test_pragma_token1, 9), (aux_sym_once_pragma_token1, 11),
     (aux_sym_must_call_pragma_token1, 13), (aux_sym_export_pragma_token1, 15),
     (anon_sym_SEMI, 310), (anon_sym_PERCENT, 312), (aux_sym_input_decls_token1, 314),
     (aux_sym_output_decls_token1, 316), (aux_sym_in_out_decls_token1, 318),
     (aux_sym_var_decls_token1, 320), (aux_sym_temp_var_decls_token1, 322),
     (aux_sym_external_var_decls_token1, 324), (aux_sym_global_var_decls_token1, 326),
     (aux_sym_fb_decl_token4, 1250), (aux_sym_method_decl_token1, 330),
     (aux_sym_prog_access_decls_token1, 332), (aux_sym_initial_step_token1, 334),
     (aux_sym_config_init_token1, 336), (aux_sym__stmt_token1, 340), (aux_sym__stmt_token2, 340),
     (aux_sym__stmt_token3, 340), (aux_sym_if_stmt_token1, 342), (aux_sym_case_stmt_token1, 344),
     (aux_sym_for_stmt_token1, 346), (aux_sym_while_stmt_token1, 348),
     (aux_sym_repeat_stmt_token1, 350), (aux_sym_raise_stmt_token1, 352),
     (aux_sym_try_stmt_token1, 354), (aux_sym_try_stmt_token2, 356),
     (aux_sym_catch_clause_token1, 356), (aux_sym_finally_clause_token1, 356), (sym_ld_rung, 358),
     (sym_fbd_network, 360), (sym_c_style_comment, 3), (sym_pascal_style_comment, 3),
     (sym_pragma, 3)]"

lemma ts_parse_row_460_scan: "row_scan tokens_63_2 0 ts_parse_row_460 = Some (Suc (Suc (Suc (Suc 0))))"
  unfolding ts_parse_row_460_def by simp

text \<open>Lines 107302 to 107414.\<close>

definition ts_parse_row_461 :: parse_row where
  "ts_parse_row_461 =
    [(sym_ERR_assign_func_call, 7530), (sym_ERR_unexpected_this_in_path, 2372),
     (sym_ERR_unexpected_super_in_path, 2372), (sym_ERR_fb_variables_after_method, 1571),
     (sym_ERR_var_access_not_allowed, 3160), (sym_ERR_var_config_not_allowed, 3160),
     (sym_ERR_var_global_not_allowed, 3160), (sym_ERR_method_decl_in_body, 3150),
     (sym_extern_pragma, 7490), (sym_wasm_pragma, 3150), (sym_warn_pragma, 7490),
     (sym_allow_pragma, 3140), (sym_test_pragma, 7490), (sym_once_pragma, 7490),
     (sym_must_call_pragma, 7490), (sym_export_pragma, 7490), (sym_pou_pragma, 7194),
     (sym_direct_variable, 7675), (sym_deref_expression, 2373), (sym_variable, 7599),
     (sym_var_access, 2373), (sym_in_out_decls, 3160), (sym_var_decls, 3160),
     (sym_retain_var_decls, 3160), (sym_temp_var_decls, 3160), (sym_external_var_decls, 3160),
     (sym_global_var_decls, 2947), (sym_loc_partly_var_decl, 3160), (sym__fb_variables, 2343),
     (sym_fb_input_decls, 3160), (sym_fb_output_decls, 3160), (sym_no_retain_var_decls, 3160),
     (sym_fb_body, 8688), (sym_method_decl, 2549), (sym_prog_access_decls, 3043), (sym_SFC, 7970),
     (sym_SFC_network, 7612), (sym_initial_step, 7439), (sym_config_init, 3047),
     (sym_variable_access, 7530), (sym_func_call, 2961), (sym_stmt_list, 7970), (sym__stmt, 2024),
     (sym_assign, 3150), (sym_if_stmt, 3150), (sym_case_stmt, 3150), (sym_for_stmt, 3150),
     (sym_while_stmt, 3150), (sym_repeat_stmt, 3150), (sym_raise_stmt, 3150), (sym_try_stmt, 3150),
     (sym_ERR_clause_outside_try, 3150), (sym_begin_path_expression, 2943), (sym_invocation, 2934),
     (sym_any_invocation, 2935), (sym_this_invocation, 2641), (sym_super_invocation, 2641),
     (sym_super_body_invocation, 2935), (sym_path_expression, 2627), (sym_field_expression, 2373),
     (sym_index_expression, 2373), (sym_ladder_diagram, 7970), (sym_fb_diagram, 7970),
     (aux_sym_ERR_fb_variables_after_method_repeat1, 2343), (aux_sym_func_decl_repeat1, 7194),
     (aux_sym_fb_decl_repeat3, 2549), (aux_sym_SFC_repeat1, 7612),
     (aux_sym_stmt_list_repeat1, 2024), (aux_sym_ladder_diagram_repeat1, 8009),
     (aux_sym_fb_diagram_repeat1, 8013), (sym_identifier, 298),
     (aux_sym_ERR_unexpected_this_in_path_token1, 304),
     (aux_sym_ERR_unexpected_super_in_path_token1, 306), (sym_line_comment, 3),
     (anon_sym_LBRACE, 308), (aux_sym_test_pragma_token1, 9), (aux_sym_once_pragma_token1, 11),
     (aux_sym_must_call_pragma_token1, 13), (aux_sym_export_pragma_token1, 15),
     (anon_sym_SEMI, 310), (anon_sym_PERCENT, 312), (aux_sym_input_decls_token1, 314),
     (aux_sym_output_decls_token1, 316), (aux_sym_in_out_decls_token1, 318),
     (aux_sym_var_decls_token1, 320), (aux_sym_temp_var_decls_token1, 322),
     (aux_sym_external_var_decls_token1, 324), (aux_sym_global_var_decls_token1, 326),
     (aux_sym_fb_decl_token4, 1252), (aux_sym_method_decl_token1, 330),
     (aux_sym_prog_access_decls_token1, 332), (aux_sym_initial_step_token1, 334),
     (aux_sym_config_init_token1, 336), (aux_sym__stmt_token1, 340), (aux_sym__stmt_token2, 340),
     (aux_sym__stmt_token3, 340), (aux_sym_if_stmt_token1, 342), (aux_sym_case_stmt_token1, 344),
     (aux_sym_for_stmt_token1, 346), (aux_sym_while_stmt_token1, 348),
     (aux_sym_repeat_stmt_token1, 350), (aux_sym_raise_stmt_token1, 352),
     (aux_sym_try_stmt_token1, 354), (aux_sym_try_stmt_token2, 356),
     (aux_sym_catch_clause_token1, 356), (aux_sym_finally_clause_token1, 356), (sym_ld_rung, 358),
     (sym_fbd_network, 360), (sym_c_style_comment, 3), (sym_pascal_style_comment, 3),
     (sym_pragma, 3)]"

lemma ts_parse_row_461_scan: "row_scan tokens_63_2 0 ts_parse_row_461 = Some (Suc (Suc (Suc (Suc 0))))"
  unfolding ts_parse_row_461_def by simp

text \<open>Lines 107415 to 107527.\<close>

definition ts_parse_row_462 :: parse_row where
  "ts_parse_row_462 =
    [(sym_ERR_assign_func_call, 7530), (sym_ERR_unexpected_this_in_path, 2372),
     (sym_ERR_unexpected_super_in_path, 2372), (sym_ERR_fb_variables_after_method, 1359),
     (sym_ERR_var_access_not_allowed, 3160), (sym_ERR_var_config_not_allowed, 3160),
     (sym_ERR_var_global_not_allowed, 3160), (sym_ERR_method_decl_in_body, 3150),
     (sym_extern_pragma, 7490), (sym_wasm_pragma, 3150), (sym_warn_pragma, 7490),
     (sym_allow_pragma, 3140), (sym_test_pragma, 7490), (sym_once_pragma, 7490),
     (sym_must_call_pragma, 7490), (sym_export_pragma, 7490), (sym_pou_pragma, 7194),
     (sym_direct_variable, 7675), (sym_deref_expression, 2373), (sym_variable, 7599),
     (sym_var_access, 2373), (sym_in_out_decls, 3160), (sym_var_decls, 3160),
     (sym_retain_var_decls, 3160), (sym_temp_var_decls, 3160), (sym_external_var_decls, 3160),
     (sym_global_var_decls, 2947), (sym_loc_partly_var_decl, 3160), (sym__fb_variables, 2343),
     (sym_fb_input_decls, 3160), (sym_fb_output_decls, 3160), (sym_no_retain_var_decls, 3160),
     (sym_fb_body, 10118), (sym_method_decl, 2549), (sym_prog_access_decls, 3043), (sym_SFC, 7970),
     (sym_SFC_network, 7612), (sym_initial_step, 7439), (sym_config_init, 3047),
     (sym_variable_access, 7530), (sym_func_call, 2961), (sym_stmt_list, 7970), (sym__stmt, 2024),
     (sym_assign, 3150), (sym_if_stmt, 3150), (sym_case_stmt, 3150), (sym_for_stmt, 3150),
     (sym_while_stmt, 3150), (sym_repeat_stmt, 3150), (sym_raise_stmt, 3150), (sym_try_stmt, 3150),
     (sym_ERR_clause_outside_try, 3150), (sym_begin_path_expression, 2943), (sym_invocation, 2934),
     (sym_any_invocation, 2935), (sym_this_invocation, 2641), (sym_super_invocation, 2641),
     (sym_super_body_invocation, 2935), (sym_path_expression, 2627), (sym_field_expression, 2373),
     (sym_index_expression, 2373), (sym_ladder_diagram, 7970), (sym_fb_diagram, 7970),
     (aux_sym_ERR_fb_variables_after_method_repeat1, 2343), (aux_sym_func_decl_repeat1, 7194),
     (aux_sym_fb_decl_repeat3, 2549), (aux_sym_SFC_repeat1, 7612),
     (aux_sym_stmt_list_repeat1, 2024), (aux_sym_ladder_diagram_repeat1, 8009),
     (aux_sym_fb_diagram_repeat1, 8013), (sym_identifier, 298),
     (aux_sym_ERR_unexpected_this_in_path_token1, 304),
     (aux_sym_ERR_unexpected_super_in_path_token1, 306), (sym_line_comment, 3),
     (anon_sym_LBRACE, 308), (aux_sym_test_pragma_token1, 9), (aux_sym_once_pragma_token1, 11),
     (aux_sym_must_call_pragma_token1, 13), (aux_sym_export_pragma_token1, 15),
     (anon_sym_SEMI, 310), (anon_sym_PERCENT, 312), (aux_sym_input_decls_token1, 314),
     (aux_sym_output_decls_token1, 316), (aux_sym_in_out_decls_token1, 318),
     (aux_sym_var_decls_token1, 320), (aux_sym_temp_var_decls_token1, 322),
     (aux_sym_external_var_decls_token1, 324), (aux_sym_global_var_decls_token1, 326),
     (aux_sym_fb_decl_token4, 1254), (aux_sym_method_decl_token1, 330),
     (aux_sym_prog_access_decls_token1, 332), (aux_sym_initial_step_token1, 334),
     (aux_sym_config_init_token1, 336), (aux_sym__stmt_token1, 340), (aux_sym__stmt_token2, 340),
     (aux_sym__stmt_token3, 340), (aux_sym_if_stmt_token1, 342), (aux_sym_case_stmt_token1, 344),
     (aux_sym_for_stmt_token1, 346), (aux_sym_while_stmt_token1, 348),
     (aux_sym_repeat_stmt_token1, 350), (aux_sym_raise_stmt_token1, 352),
     (aux_sym_try_stmt_token1, 354), (aux_sym_try_stmt_token2, 356),
     (aux_sym_catch_clause_token1, 356), (aux_sym_finally_clause_token1, 356), (sym_ld_rung, 358),
     (sym_fbd_network, 360), (sym_c_style_comment, 3), (sym_pascal_style_comment, 3),
     (sym_pragma, 3)]"

lemma ts_parse_row_462_scan: "row_scan tokens_63_2 0 ts_parse_row_462 = Some (Suc (Suc (Suc (Suc 0))))"
  unfolding ts_parse_row_462_def by simp

text \<open>Lines 107528 to 107640.\<close>

definition ts_parse_row_463 :: parse_row where
  "ts_parse_row_463 =
    [(sym_ERR_assign_func_call, 7530), (sym_ERR_unexpected_this_in_path, 2372),
     (sym_ERR_unexpected_super_in_path, 2372), (sym_ERR_fb_variables_after_method, 1360),
     (sym_ERR_var_access_not_allowed, 3160), (sym_ERR_var_config_not_allowed, 3160),
     (sym_ERR_var_global_not_allowed, 3160), (sym_ERR_method_decl_in_body, 3150),
     (sym_extern_pragma, 7490), (sym_wasm_pragma, 3150), (sym_warn_pragma, 7490),
     (sym_allow_pragma, 3140), (sym_test_pragma, 7490), (sym_once_pragma, 7490),
     (sym_must_call_pragma, 7490), (sym_export_pragma, 7490), (sym_pou_pragma, 7194),
     (sym_direct_variable, 7675), (sym_deref_expression, 2373), (sym_variable, 7599),
     (sym_var_access, 2373), (sym_in_out_decls, 3160), (sym_var_decls, 3160),
     (sym_retain_var_decls, 3160), (sym_temp_var_decls, 3160), (sym_external_var_decls, 3160),
     (sym_global_var_decls, 2947), (sym_loc_partly_var_decl, 3160), (sym__fb_variables, 2347),
     (sym_fb_input_decls, 3160), (sym_fb_output_decls, 3160), (sym_no_retain_var_decls, 3160),
     (sym_fb_body, 8285), (sym_method_decl, 607), (sym_prog_access_decls, 3043), (sym_SFC, 7970),
     (sym_SFC_network, 7612), (sym_initial_step, 7439), (sym_config_init, 3047),
     (sym_variable_access, 7530), (sym_func_call, 2961), (sym_stmt_list, 7970), (sym__stmt, 2024),
     (sym_assign, 3150), (sym_if_stmt, 3150), (sym_case_stmt, 3150), (sym_for_stmt, 3150),
     (sym_while_stmt, 3150), (sym_repeat_stmt, 3150), (sym_raise_stmt, 3150), (sym_try_stmt, 3150),
     (sym_ERR_clause_outside_try, 3150), (sym_begin_path_expression, 2943), (sym_invocation, 2934),
     (sym_any_invocation, 2935), (sym_this_invocation, 2641), (sym_super_invocation, 2641),
     (sym_super_body_invocation, 2935), (sym_path_expression, 2627), (sym_field_expression, 2373),
     (sym_index_expression, 2373), (sym_ladder_diagram, 7970), (sym_fb_diagram, 7970),
     (aux_sym_ERR_fb_variables_after_method_repeat1, 2347), (aux_sym_func_decl_repeat1, 7194),
     (aux_sym_fb_decl_repeat3, 607), (aux_sym_SFC_repeat1, 7612), (aux_sym_stmt_list_repeat1, 2024),
     (aux_sym_ladder_diagram_repeat1, 8009), (aux_sym_fb_diagram_repeat1, 8013),
     (sym_identifier, 298), (aux_sym_ERR_unexpected_this_in_path_token1, 304),
     (aux_sym_ERR_unexpected_super_in_path_token1, 306), (sym_line_comment, 3),
     (anon_sym_LBRACE, 308), (aux_sym_test_pragma_token1, 9), (aux_sym_once_pragma_token1, 11),
     (aux_sym_must_call_pragma_token1, 13), (aux_sym_export_pragma_token1, 15),
     (anon_sym_SEMI, 310), (anon_sym_PERCENT, 312), (aux_sym_input_decls_token1, 314),
     (aux_sym_output_decls_token1, 316), (aux_sym_in_out_decls_token1, 318),
     (aux_sym_var_decls_token1, 320), (aux_sym_temp_var_decls_token1, 322),
     (aux_sym_external_var_decls_token1, 324), (aux_sym_global_var_decls_token1, 326),
     (aux_sym_fb_decl_token4, 1256), (aux_sym_method_decl_token1, 330),
     (aux_sym_prog_access_decls_token1, 332), (aux_sym_initial_step_token1, 334),
     (aux_sym_config_init_token1, 336), (aux_sym__stmt_token1, 340), (aux_sym__stmt_token2, 340),
     (aux_sym__stmt_token3, 340), (aux_sym_if_stmt_token1, 342), (aux_sym_case_stmt_token1, 344),
     (aux_sym_for_stmt_token1, 346), (aux_sym_while_stmt_token1, 348),
     (aux_sym_repeat_stmt_token1, 350), (aux_sym_raise_stmt_token1, 352),
     (aux_sym_try_stmt_token1, 354), (aux_sym_try_stmt_token2, 356),
     (aux_sym_catch_clause_token1, 356), (aux_sym_finally_clause_token1, 356), (sym_ld_rung, 358),
     (sym_fbd_network, 360), (sym_c_style_comment, 3), (sym_pascal_style_comment, 3),
     (sym_pragma, 3)]"

lemma ts_parse_row_463_scan: "row_scan tokens_63_2 0 ts_parse_row_463 = Some (Suc (Suc (Suc (Suc 0))))"
  unfolding ts_parse_row_463_def by simp

text \<open>Lines 107641 to 107753.\<close>

definition ts_parse_row_464 :: parse_row where
  "ts_parse_row_464 =
    [(sym_ERR_assign_func_call, 7530), (sym_ERR_unexpected_this_in_path, 2372),
     (sym_ERR_unexpected_super_in_path, 2372), (sym_ERR_fb_variables_after_method, 1361),
     (sym_ERR_var_access_not_allowed, 3160), (sym_ERR_var_config_not_allowed, 3160),
     (sym_ERR_var_global_not_allowed, 3160), (sym_ERR_method_decl_in_body, 3150),
     (sym_extern_pragma, 7490), (sym_wasm_pragma, 3150), (sym_warn_pragma, 7490),
     (sym_allow_pragma, 3140), (sym_test_pragma, 7490), (sym_once_pragma, 7490),
     (sym_must_call_pragma, 7490), (sym_export_pragma, 7490), (sym_pou_pragma, 7194),
     (sym_direct_variable, 7675), (sym_deref_expression, 2373), (sym_variable, 7599),
     (sym_var_access, 2373), (sym_in_out_decls, 3160), (sym_var_decls, 3160),
     (sym_retain_var_decls, 3160), (sym_temp_var_decls, 3160), (sym_external_var_decls, 3160),
     (sym_global_var_decls, 2947), (sym_loc_partly_var_decl, 3160), (sym__fb_variables, 2343),
     (sym_fb_input_decls, 3160), (sym_fb_output_decls, 3160), (sym_no_retain_var_decls, 3160),
     (sym_fb_body, 8378), (sym_method_decl, 2549), (sym_prog_access_decls, 3043), (sym_SFC, 7970),
     (sym_SFC_network, 7612), (sym_initial_step, 7439), (sym_config_init, 3047),
     (sym_variable_access, 7530), (sym_func_call, 2961), (sym_stmt_list, 7970), (sym__stmt, 2024),
     (sym_assign, 3150), (sym_if_stmt, 3150), (sym_case_stmt, 3150), (sym_for_stmt, 3150),
     (sym_while_stmt, 3150), (sym_repeat_stmt, 3150), (sym_raise_stmt, 3150), (sym_try_stmt, 3150),
     (sym_ERR_clause_outside_try, 3150), (sym_begin_path_expression, 2943), (sym_invocation, 2934),
     (sym_any_invocation, 2935), (sym_this_invocation, 2641), (sym_super_invocation, 2641),
     (sym_super_body_invocation, 2935), (sym_path_expression, 2627), (sym_field_expression, 2373),
     (sym_index_expression, 2373), (sym_ladder_diagram, 7970), (sym_fb_diagram, 7970),
     (aux_sym_ERR_fb_variables_after_method_repeat1, 2343), (aux_sym_func_decl_repeat1, 7194),
     (aux_sym_fb_decl_repeat3, 2549), (aux_sym_SFC_repeat1, 7612),
     (aux_sym_stmt_list_repeat1, 2024), (aux_sym_ladder_diagram_repeat1, 8009),
     (aux_sym_fb_diagram_repeat1, 8013), (sym_identifier, 298),
     (aux_sym_ERR_unexpected_this_in_path_token1, 304),
     (aux_sym_ERR_unexpected_super_in_path_token1, 306), (sym_line_comment, 3),
     (anon_sym_LBRACE, 308), (aux_sym_test_pragma_token1, 9), (aux_sym_once_pragma_token1, 11),
     (aux_sym_must_call_pragma_token1, 13), (aux_sym_export_pragma_token1, 15),
     (anon_sym_SEMI, 310), (anon_sym_PERCENT, 312), (aux_sym_input_decls_token1, 314),
     (aux_sym_output_decls_token1, 316), (aux_sym_in_out_decls_token1, 318),
     (aux_sym_var_decls_token1, 320), (aux_sym_temp_var_decls_token1, 322),
     (aux_sym_external_var_decls_token1, 324), (aux_sym_global_var_decls_token1, 326),
     (aux_sym_fb_decl_token4, 1258), (aux_sym_method_decl_token1, 330),
     (aux_sym_prog_access_decls_token1, 332), (aux_sym_initial_step_token1, 334),
     (aux_sym_config_init_token1, 336), (aux_sym__stmt_token1, 340), (aux_sym__stmt_token2, 340),
     (aux_sym__stmt_token3, 340), (aux_sym_if_stmt_token1, 342), (aux_sym_case_stmt_token1, 344),
     (aux_sym_for_stmt_token1, 346), (aux_sym_while_stmt_token1, 348),
     (aux_sym_repeat_stmt_token1, 350), (aux_sym_raise_stmt_token1, 352),
     (aux_sym_try_stmt_token1, 354), (aux_sym_try_stmt_token2, 356),
     (aux_sym_catch_clause_token1, 356), (aux_sym_finally_clause_token1, 356), (sym_ld_rung, 358),
     (sym_fbd_network, 360), (sym_c_style_comment, 3), (sym_pascal_style_comment, 3),
     (sym_pragma, 3)]"

lemma ts_parse_row_464_scan: "row_scan tokens_63_2 0 ts_parse_row_464 = Some (Suc (Suc (Suc (Suc 0))))"
  unfolding ts_parse_row_464_def by simp

text \<open>Lines 107754 to 107866.\<close>

definition ts_parse_row_465 :: parse_row where
  "ts_parse_row_465 =
    [(sym_ERR_assign_func_call, 7530), (sym_ERR_unexpected_this_in_path, 2372),
     (sym_ERR_unexpected_super_in_path, 2372), (sym_ERR_fb_variables_after_method, 1362),
     (sym_ERR_var_access_not_allowed, 3160), (sym_ERR_var_config_not_allowed, 3160),
     (sym_ERR_var_global_not_allowed, 3160), (sym_ERR_method_decl_in_body, 3150),
     (sym_extern_pragma, 7490), (sym_wasm_pragma, 3150), (sym_warn_pragma, 7490),
     (sym_allow_pragma, 3140), (sym_test_pragma, 7490), (sym_once_pragma, 7490),
     (sym_must_call_pragma, 7490), (sym_export_pragma, 7490), (sym_pou_pragma, 7194),
     (sym_direct_variable, 7675), (sym_deref_expression, 2373), (sym_variable, 7599),
     (sym_var_access, 2373), (sym_in_out_decls, 3160), (sym_var_decls, 3160),
     (sym_retain_var_decls, 3160), (sym_temp_var_decls, 3160), (sym_external_var_decls, 3160),
     (sym_global_var_decls, 2947), (sym_loc_partly_var_decl, 3160), (sym__fb_variables, 2347),
     (sym_fb_input_decls, 3160), (sym_fb_output_decls, 3160), (sym_no_retain_var_decls, 3160),
     (sym_fb_body, 8560), (sym_method_decl, 609), (sym_prog_access_decls, 3043), (sym_SFC, 7970),
     (sym_SFC_network, 7612), (sym_initial_step, 7439), (sym_config_init, 3047),
     (sym_variable_access, 7530), (sym_func_call, 2961), (sym_stmt_list, 7970), (sym__stmt, 2024),
     (sym_assign, 3150), (sym_if_stmt, 3150), (sym_case_stmt, 3150), (sym_for_stmt, 3150),
     (sym_while_stmt, 3150), (sym_repeat_stmt, 3150), (sym_raise_stmt, 3150), (sym_try_stmt, 3150),
     (sym_ERR_clause_outside_try, 3150), (sym_begin_path_expression, 2943), (sym_invocation, 2934),
     (sym_any_invocation, 2935), (sym_this_invocation, 2641), (sym_super_invocation, 2641),
     (sym_super_body_invocation, 2935), (sym_path_expression, 2627), (sym_field_expression, 2373),
     (sym_index_expression, 2373), (sym_ladder_diagram, 7970), (sym_fb_diagram, 7970),
     (aux_sym_ERR_fb_variables_after_method_repeat1, 2347), (aux_sym_func_decl_repeat1, 7194),
     (aux_sym_fb_decl_repeat3, 609), (aux_sym_SFC_repeat1, 7612), (aux_sym_stmt_list_repeat1, 2024),
     (aux_sym_ladder_diagram_repeat1, 8009), (aux_sym_fb_diagram_repeat1, 8013),
     (sym_identifier, 298), (aux_sym_ERR_unexpected_this_in_path_token1, 304),
     (aux_sym_ERR_unexpected_super_in_path_token1, 306), (sym_line_comment, 3),
     (anon_sym_LBRACE, 308), (aux_sym_test_pragma_token1, 9), (aux_sym_once_pragma_token1, 11),
     (aux_sym_must_call_pragma_token1, 13), (aux_sym_export_pragma_token1, 15),
     (anon_sym_SEMI, 310), (anon_sym_PERCENT, 312), (aux_sym_input_decls_token1, 314),
     (aux_sym_output_decls_token1, 316), (aux_sym_in_out_decls_token1, 318),
     (aux_sym_var_decls_token1, 320), (aux_sym_temp_var_decls_token1, 322),
     (aux_sym_external_var_decls_token1, 324), (aux_sym_global_var_decls_token1, 326),
     (aux_sym_fb_decl_token4, 1260), (aux_sym_method_decl_token1, 330),
     (aux_sym_prog_access_decls_token1, 332), (aux_sym_initial_step_token1, 334),
     (aux_sym_config_init_token1, 336), (aux_sym__stmt_token1, 340), (aux_sym__stmt_token2, 340),
     (aux_sym__stmt_token3, 340), (aux_sym_if_stmt_token1, 342), (aux_sym_case_stmt_token1, 344),
     (aux_sym_for_stmt_token1, 346), (aux_sym_while_stmt_token1, 348),
     (aux_sym_repeat_stmt_token1, 350), (aux_sym_raise_stmt_token1, 352),
     (aux_sym_try_stmt_token1, 354), (aux_sym_try_stmt_token2, 356),
     (aux_sym_catch_clause_token1, 356), (aux_sym_finally_clause_token1, 356), (sym_ld_rung, 358),
     (sym_fbd_network, 360), (sym_c_style_comment, 3), (sym_pascal_style_comment, 3),
     (sym_pragma, 3)]"

lemma ts_parse_row_465_scan: "row_scan tokens_63_2 0 ts_parse_row_465 = Some (Suc (Suc (Suc (Suc 0))))"
  unfolding ts_parse_row_465_def by simp

text \<open>Lines 107867 to 107979.\<close>

definition ts_parse_row_466 :: parse_row where
  "ts_parse_row_466 =
    [(sym_ERR_assign_func_call, 7530), (sym_ERR_unexpected_this_in_path, 2372),
     (sym_ERR_unexpected_super_in_path, 2372), (sym_ERR_fb_variables_after_method, 1574),
     (sym_ERR_var_access_not_allowed, 3160), (sym_ERR_var_config_not_allowed, 3160),
     (sym_ERR_var_global_not_allowed, 3160), (sym_ERR_method_decl_in_body, 3150),
     (sym_extern_pragma, 7490), (sym_wasm_pragma, 3150), (sym_warn_pragma, 7490),
     (sym_allow_pragma, 3140), (sym_test_pragma, 7490), (sym_once_pragma, 7490),
     (sym_must_call_pragma, 7490), (sym_export_pragma, 7490), (sym_pou_pragma, 7194),
     (sym_direct_variable, 7675), (sym_deref_expression, 2373), (sym_variable, 7599),
     (sym_var_access, 2373), (sym_in_out_decls, 3160), (sym_var_decls, 3160),
     (sym_retain_var_decls, 3160), (sym_temp_var_decls, 3160), (sym_external_var_decls, 3160),
     (sym_global_var_decls, 2947), (sym_loc_partly_var_decl, 3160), (sym__fb_variables, 2347),
     (sym_fb_input_decls, 3160), (sym_fb_output_decls, 3160), (sym_no_retain_var_decls, 3160),
     (sym_fb_body, 8711), (sym_method_decl, 333), (sym_prog_access_decls, 3043), (sym_SFC, 7970),
     (sym_SFC_network, 7612), (sym_initial_step, 7439), (sym_config_init, 3047),
     (sym_variable_access, 7530), (sym_func_call, 2961), (sym_stmt_list, 7970), (sym__stmt, 2024),
     (sym_assign, 3150), (sym_if_stmt, 3150), (sym_case_stmt, 3150), (sym_for_stmt, 3150),
     (sym_while_stmt, 3150), (sym_repeat_stmt, 3150), (sym_raise_stmt, 3150), (sym_try_stmt, 3150),
     (sym_ERR_clause_outside_try, 3150), (sym_begin_path_expression, 2943), (sym_invocation, 2934),
     (sym_any_invocation, 2935), (sym_this_invocation, 2641), (sym_super_invocation, 2641),
     (sym_super_body_invocation, 2935), (sym_path_expression, 2627), (sym_field_expression, 2373),
     (sym_index_expression, 2373), (sym_ladder_diagram, 7970), (sym_fb_diagram, 7970),
     (aux_sym_ERR_fb_variables_after_method_repeat1, 2347), (aux_sym_func_decl_repeat1, 7194),
     (aux_sym_fb_decl_repeat3, 333), (aux_sym_SFC_repeat1, 7612), (aux_sym_stmt_list_repeat1, 2024),
     (aux_sym_ladder_diagram_repeat1, 8009), (aux_sym_fb_diagram_repeat1, 8013),
     (sym_identifier, 298), (aux_sym_ERR_unexpected_this_in_path_token1, 304),
     (aux_sym_ERR_unexpected_super_in_path_token1, 306), (sym_line_comment, 3),
     (anon_sym_LBRACE, 308), (aux_sym_test_pragma_token1, 9), (aux_sym_once_pragma_token1, 11),
     (aux_sym_must_call_pragma_token1, 13), (aux_sym_export_pragma_token1, 15),
     (anon_sym_SEMI, 310), (anon_sym_PERCENT, 312), (aux_sym_input_decls_token1, 314),
     (aux_sym_output_decls_token1, 316), (aux_sym_in_out_decls_token1, 318),
     (aux_sym_var_decls_token1, 320), (aux_sym_temp_var_decls_token1, 322),
     (aux_sym_external_var_decls_token1, 324), (aux_sym_global_var_decls_token1, 326),
     (aux_sym_fb_decl_token4, 1262), (aux_sym_method_decl_token1, 330),
     (aux_sym_prog_access_decls_token1, 332), (aux_sym_initial_step_token1, 334),
     (aux_sym_config_init_token1, 336), (aux_sym__stmt_token1, 340), (aux_sym__stmt_token2, 340),
     (aux_sym__stmt_token3, 340), (aux_sym_if_stmt_token1, 342), (aux_sym_case_stmt_token1, 344),
     (aux_sym_for_stmt_token1, 346), (aux_sym_while_stmt_token1, 348),
     (aux_sym_repeat_stmt_token1, 350), (aux_sym_raise_stmt_token1, 352),
     (aux_sym_try_stmt_token1, 354), (aux_sym_try_stmt_token2, 356),
     (aux_sym_catch_clause_token1, 356), (aux_sym_finally_clause_token1, 356), (sym_ld_rung, 358),
     (sym_fbd_network, 360), (sym_c_style_comment, 3), (sym_pascal_style_comment, 3),
     (sym_pragma, 3)]"

lemma ts_parse_row_466_scan: "row_scan tokens_63_2 0 ts_parse_row_466 = Some (Suc (Suc (Suc (Suc 0))))"
  unfolding ts_parse_row_466_def by simp

text \<open>Lines 107980 to 108092.\<close>

definition ts_parse_row_467 :: parse_row where
  "ts_parse_row_467 =
    [(sym_ERR_assign_func_call, 7530), (sym_ERR_unexpected_this_in_path, 2372),
     (sym_ERR_unexpected_super_in_path, 2372), (sym_ERR_fb_variables_after_method, 1996),
     (sym_ERR_var_access_not_allowed, 3160), (sym_ERR_var_config_not_allowed, 3160),
     (sym_ERR_var_global_not_allowed, 3160), (sym_ERR_method_decl_in_body, 3150),
     (sym_extern_pragma, 7490), (sym_wasm_pragma, 3150), (sym_warn_pragma, 7490),
     (sym_allow_pragma, 3140), (sym_test_pragma, 7490), (sym_once_pragma, 7490),
     (sym_must_call_pragma, 7490), (sym_export_pragma, 7490), (sym_pou_pragma, 7194),
     (sym_direct_variable, 7675), (sym_deref_expression, 2373), (sym_variable, 7599),
     (sym_var_access, 2373), (sym_in_out_decls, 3160), (sym_var_decls, 3160),
     (sym_retain_var_decls, 3160), (sym_temp_var_decls, 3160), (sym_external_var_decls, 3160),
     (sym_global_var_decls, 2947), (sym_loc_partly_var_decl, 3160), (sym__fb_variables, 2347),
     (sym_fb_input_decls, 3160), (sym_fb_output_decls, 3160), (sym_no_retain_var_decls, 3160),
     (sym_fb_body, 9429), (sym_method_decl, 568), (sym_prog_access_decls, 3043), (sym_SFC, 7970),
     (sym_SFC_network, 7612), (sym_initial_step, 7439), (sym_config_init, 3047),
     (sym_variable_access, 7530), (sym_func_call, 2961), (sym_stmt_list, 7970), (sym__stmt, 2024),
     (sym_assign, 3150), (sym_if_stmt, 3150), (sym_case_stmt, 3150), (sym_for_stmt, 3150),
     (sym_while_stmt, 3150), (sym_repeat_stmt, 3150), (sym_raise_stmt, 3150), (sym_try_stmt, 3150),
     (sym_ERR_clause_outside_try, 3150), (sym_begin_path_expression, 2943), (sym_invocation, 2934),
     (sym_any_invocation, 2935), (sym_this_invocation, 2641), (sym_super_invocation, 2641),
     (sym_super_body_invocation, 2935), (sym_path_expression, 2627), (sym_field_expression, 2373),
     (sym_index_expression, 2373), (sym_ladder_diagram, 7970), (sym_fb_diagram, 7970),
     (aux_sym_ERR_fb_variables_after_method_repeat1, 2347), (aux_sym_func_decl_repeat1, 7194),
     (aux_sym_fb_decl_repeat3, 568), (aux_sym_SFC_repeat1, 7612), (aux_sym_stmt_list_repeat1, 2024),
     (aux_sym_ladder_diagram_repeat1, 8009), (aux_sym_fb_diagram_repeat1, 8013),
     (sym_identifier, 298), (aux_sym_ERR_unexpected_this_in_path_token1, 304),
     (aux_sym_ERR_unexpected_super_in_path_token1, 306), (sym_line_comment, 3),
     (anon_sym_LBRACE, 308), (aux_sym_test_pragma_token1, 9), (aux_sym_once_pragma_token1, 11),
     (aux_sym_must_call_pragma_token1, 13), (aux_sym_export_pragma_token1, 15),
     (anon_sym_SEMI, 310), (anon_sym_PERCENT, 312), (aux_sym_input_decls_token1, 314),
     (aux_sym_output_decls_token1, 316), (aux_sym_in_out_decls_token1, 318),
     (aux_sym_var_decls_token1, 320), (aux_sym_temp_var_decls_token1, 322),
     (aux_sym_external_var_decls_token1, 324), (aux_sym_global_var_decls_token1, 326),
     (aux_sym_fb_decl_token4, 1264), (aux_sym_method_decl_token1, 330),
     (aux_sym_prog_access_decls_token1, 332), (aux_sym_initial_step_token1, 334),
     (aux_sym_config_init_token1, 336), (aux_sym__stmt_token1, 340), (aux_sym__stmt_token2, 340),
     (aux_sym__stmt_token3, 340), (aux_sym_if_stmt_token1, 342), (aux_sym_case_stmt_token1, 344),
     (aux_sym_for_stmt_token1, 346), (aux_sym_while_stmt_token1, 348),
     (aux_sym_repeat_stmt_token1, 350), (aux_sym_raise_stmt_token1, 352),
     (aux_sym_try_stmt_token1, 354), (aux_sym_try_stmt_token2, 356),
     (aux_sym_catch_clause_token1, 356), (aux_sym_finally_clause_token1, 356), (sym_ld_rung, 358),
     (sym_fbd_network, 360), (sym_c_style_comment, 3), (sym_pascal_style_comment, 3),
     (sym_pragma, 3)]"

lemma ts_parse_row_467_scan: "row_scan tokens_63_2 0 ts_parse_row_467 = Some (Suc (Suc (Suc (Suc 0))))"
  unfolding ts_parse_row_467_def by simp

text \<open>Lines 108093 to 108205.\<close>

definition ts_parse_row_468 :: parse_row where
  "ts_parse_row_468 =
    [(sym_ERR_assign_func_call, 7530), (sym_ERR_unexpected_this_in_path, 2372),
     (sym_ERR_unexpected_super_in_path, 2372), (sym_ERR_fb_variables_after_method, 1366),
     (sym_ERR_var_access_not_allowed, 3160), (sym_ERR_var_config_not_allowed, 3160),
     (sym_ERR_var_global_not_allowed, 3160), (sym_ERR_method_decl_in_body, 3150),
     (sym_extern_pragma, 7490), (sym_wasm_pragma, 3150), (sym_warn_pragma, 7490),
     (sym_allow_pragma, 3140), (sym_test_pragma, 7490), (sym_once_pragma, 7490),
     (sym_must_call_pragma, 7490), (sym_export_pragma, 7490), (sym_pou_pragma, 7194),
     (sym_direct_variable, 7675), (sym_deref_expression, 2373), (sym_variable, 7599),
     (sym_var_access, 2373), (sym_in_out_decls, 3160), (sym_var_decls, 3160),
     (sym_retain_var_decls, 3160), (sym_temp_var_decls, 3160), (sym_external_var_decls, 3160),
     (sym_global_var_decls, 2947), (sym_loc_partly_var_decl, 3160), (sym__fb_variables, 2343),
     (sym_fb_input_decls, 3160), (sym_fb_output_decls, 3160), (sym_no_retain_var_decls, 3160),
     (sym_fb_body, 8837), (sym_method_decl, 2549), (sym_prog_access_decls, 3043), (sym_SFC, 7970),
     (sym_SFC_network, 7612), (sym_initial_step, 7439), (sym_config_init, 3047),
     (sym_variable_access, 7530), (sym_func_call, 2961), (sym_stmt_list, 7970), (sym__stmt, 2024),
     (sym_assign, 3150), (sym_if_stmt, 3150), (sym_case_stmt, 3150), (sym_for_stmt, 3150),
     (sym_while_stmt, 3150), (sym_repeat_stmt, 3150), (sym_raise_stmt, 3150), (sym_try_stmt, 3150),
     (sym_ERR_clause_outside_try, 3150), (sym_begin_path_expression, 2943), (sym_invocation, 2934),
     (sym_any_invocation, 2935), (sym_this_invocation, 2641), (sym_super_invocation, 2641),
     (sym_super_body_invocation, 2935), (sym_path_expression, 2627), (sym_field_expression, 2373),
     (sym_index_expression, 2373), (sym_ladder_diagram, 7970), (sym_fb_diagram, 7970),
     (aux_sym_ERR_fb_variables_after_method_repeat1, 2343), (aux_sym_func_decl_repeat1, 7194),
     (aux_sym_fb_decl_repeat3, 2549), (aux_sym_SFC_repeat1, 7612),
     (aux_sym_stmt_list_repeat1, 2024), (aux_sym_ladder_diagram_repeat1, 8009),
     (aux_sym_fb_diagram_repeat1, 8013), (sym_identifier, 298),
     (aux_sym_ERR_unexpected_this_in_path_token1, 304),
     (aux_sym_ERR_unexpected_super_in_path_token1, 306), (sym_line_comment, 3),
     (anon_sym_LBRACE, 308), (aux_sym_test_pragma_token1, 9), (aux_sym_once_pragma_token1, 11),
     (aux_sym_must_call_pragma_token1, 13), (aux_sym_export_pragma_token1, 15),
     (anon_sym_SEMI, 310), (anon_sym_PERCENT, 312), (aux_sym_input_decls_token1, 314),
     (aux_sym_output_decls_token1, 316), (aux_sym_in_out_decls_token1, 318),
     (aux_sym_var_decls_token1, 320), (aux_sym_temp_var_decls_token1, 322),
     (aux_sym_external_var_decls_token1, 324), (aux_sym_global_var_decls_token1, 326),
     (aux_sym_fb_decl_token4, 1266), (aux_sym_method_decl_token1, 330),
     (aux_sym_prog_access_decls_token1, 332), (aux_sym_initial_step_token1, 334),
     (aux_sym_config_init_token1, 336), (aux_sym__stmt_token1, 340), (aux_sym__stmt_token2, 340),
     (aux_sym__stmt_token3, 340), (aux_sym_if_stmt_token1, 342), (aux_sym_case_stmt_token1, 344),
     (aux_sym_for_stmt_token1, 346), (aux_sym_while_stmt_token1, 348),
     (aux_sym_repeat_stmt_token1, 350), (aux_sym_raise_stmt_token1, 352),
     (aux_sym_try_stmt_token1, 354), (aux_sym_try_stmt_token2, 356),
     (aux_sym_catch_clause_token1, 356), (aux_sym_finally_clause_token1, 356), (sym_ld_rung, 358),
     (sym_fbd_network, 360), (sym_c_style_comment, 3), (sym_pascal_style_comment, 3),
     (sym_pragma, 3)]"

lemma ts_parse_row_468_scan: "row_scan tokens_63_2 0 ts_parse_row_468 = Some (Suc (Suc (Suc (Suc 0))))"
  unfolding ts_parse_row_468_def by simp

text \<open>Lines 108206 to 108318.\<close>

definition ts_parse_row_469 :: parse_row where
  "ts_parse_row_469 =
    [(sym_ERR_assign_func_call, 7530), (sym_ERR_unexpected_this_in_path, 2372),
     (sym_ERR_unexpected_super_in_path, 2372), (sym_ERR_fb_variables_after_method, 1367),
     (sym_ERR_var_access_not_allowed, 3160), (sym_ERR_var_config_not_allowed, 3160),
     (sym_ERR_var_global_not_allowed, 3160), (sym_ERR_method_decl_in_body, 3150),
     (sym_extern_pragma, 7490), (sym_wasm_pragma, 3150), (sym_warn_pragma, 7490),
     (sym_allow_pragma, 3140), (sym_test_pragma, 7490), (sym_once_pragma, 7490),
     (sym_must_call_pragma, 7490), (sym_export_pragma, 7490), (sym_pou_pragma, 7194),
     (sym_direct_variable, 7675), (sym_deref_expression, 2373), (sym_variable, 7599),
     (sym_var_access, 2373), (sym_in_out_decls, 3160), (sym_var_decls, 3160),
     (sym_retain_var_decls, 3160), (sym_temp_var_decls, 3160), (sym_external_var_decls, 3160),
     (sym_global_var_decls, 2947), (sym_loc_partly_var_decl, 3160), (sym__fb_variables, 2347),
     (sym_fb_input_decls, 3160), (sym_fb_output_decls, 3160), (sym_no_retain_var_decls, 3160),
     (sym_fb_body, 9339), (sym_method_decl, 615), (sym_prog_access_decls, 3043), (sym_SFC, 7970),
     (sym_SFC_network, 7612), (sym_initial_step, 7439), (sym_config_init, 3047),
     (sym_variable_access, 7530), (sym_func_call, 2961), (sym_stmt_list, 7970), (sym__stmt, 2024),
     (sym_assign, 3150), (sym_if_stmt, 3150), (sym_case_stmt, 3150), (sym_for_stmt, 3150),
     (sym_while_stmt, 3150), (sym_repeat_stmt, 3150), (sym_raise_stmt, 3150), (sym_try_stmt, 3150),
     (sym_ERR_clause_outside_try, 3150), (sym_begin_path_expression, 2943), (sym_invocation, 2934),
     (sym_any_invocation, 2935), (sym_this_invocation, 2641), (sym_super_invocation, 2641),
     (sym_super_body_invocation, 2935), (sym_path_expression, 2627), (sym_field_expression, 2373),
     (sym_index_expression, 2373), (sym_ladder_diagram, 7970), (sym_fb_diagram, 7970),
     (aux_sym_ERR_fb_variables_after_method_repeat1, 2347), (aux_sym_func_decl_repeat1, 7194),
     (aux_sym_fb_decl_repeat3, 615), (aux_sym_SFC_repeat1, 7612), (aux_sym_stmt_list_repeat1, 2024),
     (aux_sym_ladder_diagram_repeat1, 8009), (aux_sym_fb_diagram_repeat1, 8013),
     (sym_identifier, 298), (aux_sym_ERR_unexpected_this_in_path_token1, 304),
     (aux_sym_ERR_unexpected_super_in_path_token1, 306), (sym_line_comment, 3),
     (anon_sym_LBRACE, 308), (aux_sym_test_pragma_token1, 9), (aux_sym_once_pragma_token1, 11),
     (aux_sym_must_call_pragma_token1, 13), (aux_sym_export_pragma_token1, 15),
     (anon_sym_SEMI, 310), (anon_sym_PERCENT, 312), (aux_sym_input_decls_token1, 314),
     (aux_sym_output_decls_token1, 316), (aux_sym_in_out_decls_token1, 318),
     (aux_sym_var_decls_token1, 320), (aux_sym_temp_var_decls_token1, 322),
     (aux_sym_external_var_decls_token1, 324), (aux_sym_global_var_decls_token1, 326),
     (aux_sym_fb_decl_token4, 1268), (aux_sym_method_decl_token1, 330),
     (aux_sym_prog_access_decls_token1, 332), (aux_sym_initial_step_token1, 334),
     (aux_sym_config_init_token1, 336), (aux_sym__stmt_token1, 340), (aux_sym__stmt_token2, 340),
     (aux_sym__stmt_token3, 340), (aux_sym_if_stmt_token1, 342), (aux_sym_case_stmt_token1, 344),
     (aux_sym_for_stmt_token1, 346), (aux_sym_while_stmt_token1, 348),
     (aux_sym_repeat_stmt_token1, 350), (aux_sym_raise_stmt_token1, 352),
     (aux_sym_try_stmt_token1, 354), (aux_sym_try_stmt_token2, 356),
     (aux_sym_catch_clause_token1, 356), (aux_sym_finally_clause_token1, 356), (sym_ld_rung, 358),
     (sym_fbd_network, 360), (sym_c_style_comment, 3), (sym_pascal_style_comment, 3),
     (sym_pragma, 3)]"

lemma ts_parse_row_469_scan: "row_scan tokens_63_2 0 ts_parse_row_469 = Some (Suc (Suc (Suc (Suc 0))))"
  unfolding ts_parse_row_469_def by simp

text \<open>Lines 108319 to 108431.\<close>

definition ts_parse_row_470 :: parse_row where
  "ts_parse_row_470 =
    [(sym_ERR_assign_func_call, 7530), (sym_ERR_unexpected_this_in_path, 2372),
     (sym_ERR_unexpected_super_in_path, 2372), (sym_ERR_fb_variables_after_method, 1585),
     (sym_ERR_var_access_not_allowed, 3160), (sym_ERR_var_config_not_allowed, 3160),
     (sym_ERR_var_global_not_allowed, 3160), (sym_ERR_method_decl_in_body, 3150),
     (sym_extern_pragma, 7490), (sym_wasm_pragma, 3150), (sym_warn_pragma, 7490),
     (sym_allow_pragma, 3140), (sym_test_pragma, 7490), (sym_once_pragma, 7490),
     (sym_must_call_pragma, 7490), (sym_export_pragma, 7490), (sym_pou_pragma, 7194),
     (sym_direct_variable, 7675), (sym_deref_expression, 2373), (sym_variable, 7599),
     (sym_var_access, 2373), (sym_in_out_decls, 3160), (sym_var_decls, 3160),
     (sym_retain_var_decls, 3160), (sym_temp_var_decls, 3160), (sym_external_var_decls, 3160),
     (sym_global_var_decls, 2947), (sym_loc_partly_var_decl, 3160), (sym__fb_variables, 2343),
     (sym_fb_input_decls, 3160), (sym_fb_output_decls, 3160), (sym_no_retain_var_decls, 3160),
     (sym_fb_body, 8734), (sym_method_decl, 2549), (sym_prog_access_decls, 3043), (sym_SFC, 7970),
     (sym_SFC_network, 7612), (sym_initial_step, 7439), (sym_config_init, 3047),
     (sym_variable_access, 7530), (sym_func_call, 2961), (sym_stmt_list, 7970), (sym__stmt, 2024),
     (sym_assign, 3150), (sym_if_stmt, 3150), (sym_case_stmt, 3150), (sym_for_stmt, 3150),
     (sym_while_stmt, 3150), (sym_repeat_stmt, 3150), (sym_raise_stmt, 3150), (sym_try_stmt, 3150),
     (sym_ERR_clause_outside_try, 3150), (sym_begin_path_expression, 2943), (sym_invocation, 2934),
     (sym_any_invocation, 2935), (sym_this_invocation, 2641), (sym_super_invocation, 2641),
     (sym_super_body_invocation, 2935), (sym_path_expression, 2627), (sym_field_expression, 2373),
     (sym_index_expression, 2373), (sym_ladder_diagram, 7970), (sym_fb_diagram, 7970),
     (aux_sym_ERR_fb_variables_after_method_repeat1, 2343), (aux_sym_func_decl_repeat1, 7194),
     (aux_sym_fb_decl_repeat3, 2549), (aux_sym_SFC_repeat1, 7612),
     (aux_sym_stmt_list_repeat1, 2024), (aux_sym_ladder_diagram_repeat1, 8009),
     (aux_sym_fb_diagram_repeat1, 8013), (sym_identifier, 298),
     (aux_sym_ERR_unexpected_this_in_path_token1, 304),
     (aux_sym_ERR_unexpected_super_in_path_token1, 306), (sym_line_comment, 3),
     (anon_sym_LBRACE, 308), (aux_sym_test_pragma_token1, 9), (aux_sym_once_pragma_token1, 11),
     (aux_sym_must_call_pragma_token1, 13), (aux_sym_export_pragma_token1, 15),
     (anon_sym_SEMI, 310), (anon_sym_PERCENT, 312), (aux_sym_input_decls_token1, 314),
     (aux_sym_output_decls_token1, 316), (aux_sym_in_out_decls_token1, 318),
     (aux_sym_var_decls_token1, 320), (aux_sym_temp_var_decls_token1, 322),
     (aux_sym_external_var_decls_token1, 324), (aux_sym_global_var_decls_token1, 326),
     (aux_sym_fb_decl_token4, 1270), (aux_sym_method_decl_token1, 330),
     (aux_sym_prog_access_decls_token1, 332), (aux_sym_initial_step_token1, 334),
     (aux_sym_config_init_token1, 336), (aux_sym__stmt_token1, 340), (aux_sym__stmt_token2, 340),
     (aux_sym__stmt_token3, 340), (aux_sym_if_stmt_token1, 342), (aux_sym_case_stmt_token1, 344),
     (aux_sym_for_stmt_token1, 346), (aux_sym_while_stmt_token1, 348),
     (aux_sym_repeat_stmt_token1, 350), (aux_sym_raise_stmt_token1, 352),
     (aux_sym_try_stmt_token1, 354), (aux_sym_try_stmt_token2, 356),
     (aux_sym_catch_clause_token1, 356), (aux_sym_finally_clause_token1, 356), (sym_ld_rung, 358),
     (sym_fbd_network, 360), (sym_c_style_comment, 3), (sym_pascal_style_comment, 3),
     (sym_pragma, 3)]"

lemma ts_parse_row_470_scan: "row_scan tokens_63_2 0 ts_parse_row_470 = Some (Suc (Suc (Suc (Suc 0))))"
  unfolding ts_parse_row_470_def by simp

text \<open>Lines 108432 to 108544.\<close>

definition ts_parse_row_471 :: parse_row where
  "ts_parse_row_471 =
    [(sym_ERR_assign_func_call, 7530), (sym_ERR_unexpected_this_in_path, 2372),
     (sym_ERR_unexpected_super_in_path, 2372), (sym_ERR_fb_variables_after_method, 1861),
     (sym_ERR_var_access_not_allowed, 3160), (sym_ERR_var_config_not_allowed, 3160),
     (sym_ERR_var_global_not_allowed, 3160), (sym_ERR_method_decl_in_body, 3150),
     (sym_extern_pragma, 7490), (sym_wasm_pragma, 3150), (sym_warn_pragma, 7490),
     (sym_allow_pragma, 3140), (sym_test_pragma, 7490), (sym_once_pragma, 7490),
     (sym_must_call_pragma, 7490), (sym_export_pragma, 7490), (sym_pou_pragma, 7194),
     (sym_direct_variable, 7675), (sym_deref_expression, 2373), (sym_variable, 7599),
     (sym_var_access, 2373), (sym_in_out_decls, 3160), (sym_var_decls, 3160),
     (sym_retain_var_decls, 3160), (sym_temp_var_decls, 3160), (sym_external_var_decls, 3160),
     (sym_global_var_decls, 2947), (sym_loc_partly_var_decl, 3160), (sym__fb_variables, 2343),
     (sym_fb_input_decls, 3160), (sym_fb_output_decls, 3160), (sym_no_retain_var_decls, 3160),
     (sym_fb_body, 8767), (sym_method_decl, 2549), (sym_prog_access_decls, 3043), (sym_SFC, 7970),
     (sym_SFC_network, 7612), (sym_initial_step, 7439), (sym_config_init, 3047),
     (sym_variable_access, 7530), (sym_func_call, 2961), (sym_stmt_list, 7970), (sym__stmt, 2024),
     (sym_assign, 3150), (sym_if_stmt, 3150), (sym_case_stmt, 3150), (sym_for_stmt, 3150),
     (sym_while_stmt, 3150), (sym_repeat_stmt, 3150), (sym_raise_stmt, 3150), (sym_try_stmt, 3150),
     (sym_ERR_clause_outside_try, 3150), (sym_begin_path_expression, 2943), (sym_invocation, 2934),
     (sym_any_invocation, 2935), (sym_this_invocation, 2641), (sym_super_invocation, 2641),
     (sym_super_body_invocation, 2935), (sym_path_expression, 2627), (sym_field_expression, 2373),
     (sym_index_expression, 2373), (sym_ladder_diagram, 7970), (sym_fb_diagram, 7970),
     (aux_sym_ERR_fb_variables_after_method_repeat1, 2343), (aux_sym_func_decl_repeat1, 7194),
     (aux_sym_fb_decl_repeat3, 2549), (aux_sym_SFC_repeat1, 7612),
     (aux_sym_stmt_list_repeat1, 2024), (aux_sym_ladder_diagram_repeat1, 8009),
     (aux_sym_fb_diagram_repeat1, 8013), (sym_identifier, 298),
     (aux_sym_ERR_unexpected_this_in_path_token1, 304),
     (aux_sym_ERR_unexpected_super_in_path_token1, 306), (sym_line_comment, 3),
     (anon_sym_LBRACE, 308), (aux_sym_test_pragma_token1, 9), (aux_sym_once_pragma_token1, 11),
     (aux_sym_must_call_pragma_token1, 13), (aux_sym_export_pragma_token1, 15),
     (anon_sym_SEMI, 310), (anon_sym_PERCENT, 312), (aux_sym_input_decls_token1, 314),
     (aux_sym_output_decls_token1, 316), (aux_sym_in_out_decls_token1, 318),
     (aux_sym_var_decls_token1, 320), (aux_sym_temp_var_decls_token1, 322),
     (aux_sym_external_var_decls_token1, 324), (aux_sym_global_var_decls_token1, 326),
     (aux_sym_fb_decl_token4, 1272), (aux_sym_method_decl_token1, 330),
     (aux_sym_prog_access_decls_token1, 332), (aux_sym_initial_step_token1, 334),
     (aux_sym_config_init_token1, 336), (aux_sym__stmt_token1, 340), (aux_sym__stmt_token2, 340),
     (aux_sym__stmt_token3, 340), (aux_sym_if_stmt_token1, 342), (aux_sym_case_stmt_token1, 344),
     (aux_sym_for_stmt_token1, 346), (aux_sym_while_stmt_token1, 348),
     (aux_sym_repeat_stmt_token1, 350), (aux_sym_raise_stmt_token1, 352),
     (aux_sym_try_stmt_token1, 354), (aux_sym_try_stmt_token2, 356),
     (aux_sym_catch_clause_token1, 356), (aux_sym_finally_clause_token1, 356), (sym_ld_rung, 358),
     (sym_fbd_network, 360), (sym_c_style_comment, 3), (sym_pascal_style_comment, 3),
     (sym_pragma, 3)]"

lemma ts_parse_row_471_scan: "row_scan tokens_63_2 0 ts_parse_row_471 = Some (Suc (Suc (Suc (Suc 0))))"
  unfolding ts_parse_row_471_def by simp

text \<open>Lines 108545 to 108657.\<close>

definition ts_parse_row_472 :: parse_row where
  "ts_parse_row_472 =
    [(sym_ERR_assign_func_call, 7530), (sym_ERR_unexpected_this_in_path, 2372),
     (sym_ERR_unexpected_super_in_path, 2372), (sym_ERR_fb_variables_after_method, 1371),
     (sym_ERR_var_access_not_allowed, 3160), (sym_ERR_var_config_not_allowed, 3160),
     (sym_ERR_var_global_not_allowed, 3160), (sym_ERR_method_decl_in_body, 3150),
     (sym_extern_pragma, 7490), (sym_wasm_pragma, 3150), (sym_warn_pragma, 7490),
     (sym_allow_pragma, 3140), (sym_test_pragma, 7490), (sym_once_pragma, 7490),
     (sym_must_call_pragma, 7490), (sym_export_pragma, 7490), (sym_pou_pragma, 7194),
     (sym_direct_variable, 7675), (sym_deref_expression, 2373), (sym_variable, 7599),
     (sym_var_access, 2373), (sym_in_out_decls, 3160), (sym_var_decls, 3160),
     (sym_retain_var_decls, 3160), (sym_temp_var_decls, 3160), (sym_external_var_decls, 3160),
     (sym_global_var_decls, 2947), (sym_loc_partly_var_decl, 3160), (sym__fb_variables, 2343),
     (sym_fb_input_decls, 3160), (sym_fb_output_decls, 3160), (sym_no_retain_var_decls, 3160),
     (sym_fb_body, 9590), (sym_method_decl, 2549), (sym_prog_access_decls, 3043), (sym_SFC, 7970),
     (sym_SFC_network, 7612), (sym_initial_step, 7439), (sym_config_init, 3047),
     (sym_variable_access, 7530), (sym_func_call, 2961), (sym_stmt_list, 7970), (sym__stmt, 2024),
     (sym_assign, 3150), (sym_if_stmt, 3150), (sym_case_stmt, 3150), (sym_for_stmt, 3150),
     (sym_while_stmt, 3150), (sym_repeat_stmt, 3150), (sym_raise_stmt, 3150), (sym_try_stmt, 3150),
     (sym_ERR_clause_outside_try, 3150), (sym_begin_path_expression, 2943), (sym_invocation, 2934),
     (sym_any_invocation, 2935), (sym_this_invocation, 2641), (sym_super_invocation, 2641),
     (sym_super_body_invocation, 2935), (sym_path_expression, 2627), (sym_field_expression, 2373),
     (sym_index_expression, 2373), (sym_ladder_diagram, 7970), (sym_fb_diagram, 7970),
     (aux_sym_ERR_fb_variables_after_method_repeat1, 2343), (aux_sym_func_decl_repeat1, 7194),
     (aux_sym_fb_decl_repeat3, 2549), (aux_sym_SFC_repeat1, 7612),
     (aux_sym_stmt_list_repeat1, 2024), (aux_sym_ladder_diagram_repeat1, 8009),
     (aux_sym_fb_diagram_repeat1, 8013), (sym_identifier, 298),
     (aux_sym_ERR_unexpected_this_in_path_token1, 304),
     (aux_sym_ERR_unexpected_super_in_path_token1, 306), (sym_line_comment, 3),
     (anon_sym_LBRACE, 308), (aux_sym_test_pragma_token1, 9), (aux_sym_once_pragma_token1, 11),
     (aux_sym_must_call_pragma_token1, 13), (aux_sym_export_pragma_token1, 15),
     (anon_sym_SEMI, 310), (anon_sym_PERCENT, 312), (aux_sym_input_decls_token1, 314),
     (aux_sym_output_decls_token1, 316), (aux_sym_in_out_decls_token1, 318),
     (aux_sym_var_decls_token1, 320), (aux_sym_temp_var_decls_token1, 322),
     (aux_sym_external_var_decls_token1, 324), (aux_sym_global_var_decls_token1, 326),
     (aux_sym_fb_decl_token4, 1274), (aux_sym_method_decl_token1, 330),
     (aux_sym_prog_access_decls_token1, 332), (aux_sym_initial_step_token1, 334),
     (aux_sym_config_init_token1, 336), (aux_sym__stmt_token1, 340), (aux_sym__stmt_token2, 340),
     (aux_sym__stmt_token3, 340), (aux_sym_if_stmt_token1, 342), (aux_sym_case_stmt_token1, 344),
     (aux_sym_for_stmt_token1, 346), (aux_sym_while_stmt_token1, 348),
     (aux_sym_repeat_stmt_token1, 350), (aux_sym_raise_stmt_token1, 352),
     (aux_sym_try_stmt_token1, 354), (aux_sym_try_stmt_token2, 356),
     (aux_sym_catch_clause_token1, 356), (aux_sym_finally_clause_token1, 356), (sym_ld_rung, 358),
     (sym_fbd_network, 360), (sym_c_style_comment, 3), (sym_pascal_style_comment, 3),
     (sym_pragma, 3)]"

lemma ts_parse_row_472_scan: "row_scan tokens_63_2 0 ts_parse_row_472 = Some (Suc (Suc (Suc (Suc 0))))"
  unfolding ts_parse_row_472_def by simp

text \<open>Lines 108658 to 108770.\<close>

definition ts_parse_row_473 :: parse_row where
  "ts_parse_row_473 =
    [(sym_ERR_assign_func_call, 7530), (sym_ERR_unexpected_this_in_path, 2372),
     (sym_ERR_unexpected_super_in_path, 2372), (sym_ERR_fb_variables_after_method, 1372),
     (sym_ERR_var_access_not_allowed, 3160), (sym_ERR_var_config_not_allowed, 3160),
     (sym_ERR_var_global_not_allowed, 3160), (sym_ERR_method_decl_in_body, 3150),
     (sym_extern_pragma, 7490), (sym_wasm_pragma, 3150), (sym_warn_pragma, 7490),
     (sym_allow_pragma, 3140), (sym_test_pragma, 7490), (sym_once_pragma, 7490),
     (sym_must_call_pragma, 7490), (sym_export_pragma, 7490), (sym_pou_pragma, 7194),
     (sym_direct_variable, 7675), (sym_deref_expression, 2373), (sym_variable, 7599),
     (sym_var_access, 2373), (sym_in_out_decls, 3160), (sym_var_decls, 3160),
     (sym_retain_var_decls, 3160), (sym_temp_var_decls, 3160), (sym_external_var_decls, 3160),
     (sym_global_var_decls, 2947), (sym_loc_partly_var_decl, 3160), (sym__fb_variables, 2343),
     (sym_fb_input_decls, 3160), (sym_fb_output_decls, 3160), (sym_no_retain_var_decls, 3160),
     (sym_fb_body, 9786), (sym_method_decl, 2549), (sym_prog_access_decls, 3043), (sym_SFC, 7970),
     (sym_SFC_network, 7612), (sym_initial_step, 7439), (sym_config_init, 3047),
     (sym_variable_access, 7530), (sym_func_call, 2961), (sym_stmt_list, 7970), (sym__stmt, 2024),
     (sym_assign, 3150), (sym_if_stmt, 3150), (sym_case_stmt, 3150), (sym_for_stmt, 3150),
     (sym_while_stmt, 3150), (sym_repeat_stmt, 3150), (sym_raise_stmt, 3150), (sym_try_stmt, 3150),
     (sym_ERR_clause_outside_try, 3150), (sym_begin_path_expression, 2943), (sym_invocation, 2934),
     (sym_any_invocation, 2935), (sym_this_invocation, 2641), (sym_super_invocation, 2641),
     (sym_super_body_invocation, 2935), (sym_path_expression, 2627), (sym_field_expression, 2373),
     (sym_index_expression, 2373), (sym_ladder_diagram, 7970), (sym_fb_diagram, 7970),
     (aux_sym_ERR_fb_variables_after_method_repeat1, 2343), (aux_sym_func_decl_repeat1, 7194),
     (aux_sym_fb_decl_repeat3, 2549), (aux_sym_SFC_repeat1, 7612),
     (aux_sym_stmt_list_repeat1, 2024), (aux_sym_ladder_diagram_repeat1, 8009),
     (aux_sym_fb_diagram_repeat1, 8013), (sym_identifier, 298),
     (aux_sym_ERR_unexpected_this_in_path_token1, 304),
     (aux_sym_ERR_unexpected_super_in_path_token1, 306), (sym_line_comment, 3),
     (anon_sym_LBRACE, 308), (aux_sym_test_pragma_token1, 9), (aux_sym_once_pragma_token1, 11),
     (aux_sym_must_call_pragma_token1, 13), (aux_sym_export_pragma_token1, 15),
     (anon_sym_SEMI, 310), (anon_sym_PERCENT, 312), (aux_sym_input_decls_token1, 314),
     (aux_sym_output_decls_token1, 316), (aux_sym_in_out_decls_token1, 318),
     (aux_sym_var_decls_token1, 320), (aux_sym_temp_var_decls_token1, 322),
     (aux_sym_external_var_decls_token1, 324), (aux_sym_global_var_decls_token1, 326),
     (aux_sym_fb_decl_token4, 1276), (aux_sym_method_decl_token1, 330),
     (aux_sym_prog_access_decls_token1, 332), (aux_sym_initial_step_token1, 334),
     (aux_sym_config_init_token1, 336), (aux_sym__stmt_token1, 340), (aux_sym__stmt_token2, 340),
     (aux_sym__stmt_token3, 340), (aux_sym_if_stmt_token1, 342), (aux_sym_case_stmt_token1, 344),
     (aux_sym_for_stmt_token1, 346), (aux_sym_while_stmt_token1, 348),
     (aux_sym_repeat_stmt_token1, 350), (aux_sym_raise_stmt_token1, 352),
     (aux_sym_try_stmt_token1, 354), (aux_sym_try_stmt_token2, 356),
     (aux_sym_catch_clause_token1, 356), (aux_sym_finally_clause_token1, 356), (sym_ld_rung, 358),
     (sym_fbd_network, 360), (sym_c_style_comment, 3), (sym_pascal_style_comment, 3),
     (sym_pragma, 3)]"

lemma ts_parse_row_473_scan: "row_scan tokens_63_2 0 ts_parse_row_473 = Some (Suc (Suc (Suc (Suc 0))))"
  unfolding ts_parse_row_473_def by simp

text \<open>Lines 108771 to 108883.\<close>

definition ts_parse_row_474 :: parse_row where
  "ts_parse_row_474 =
    [(sym_ERR_assign_func_call, 7530), (sym_ERR_unexpected_this_in_path, 2372),
     (sym_ERR_unexpected_super_in_path, 2372), (sym_ERR_fb_variables_after_method, 1373),
     (sym_ERR_var_access_not_allowed, 3160), (sym_ERR_var_config_not_allowed, 3160),
     (sym_ERR_var_global_not_allowed, 3160), (sym_ERR_method_decl_in_body, 3150),
     (sym_extern_pragma, 7490), (sym_wasm_pragma, 3150), (sym_warn_pragma, 7490),
     (sym_allow_pragma, 3140), (sym_test_pragma, 7490), (sym_once_pragma, 7490),
     (sym_must_call_pragma, 7490), (sym_export_pragma, 7490), (sym_pou_pragma, 7194),
     (sym_direct_variable, 7675), (sym_deref_expression, 2373), (sym_variable, 7599),
     (sym_var_access, 2373), (sym_in_out_decls, 3160), (sym_var_decls, 3160),
     (sym_retain_var_decls, 3160), (sym_temp_var_decls, 3160), (sym_external_var_decls, 3160),
     (sym_global_var_decls, 2947), (sym_loc_partly_var_decl, 3160), (sym__fb_variables, 2343),
     (sym_fb_input_decls, 3160), (sym_fb_output_decls, 3160), (sym_no_retain_var_decls, 3160),
     (sym_fb_body, 9904), (sym_method_decl, 2549), (sym_prog_access_decls, 3043), (sym_SFC, 7970),
     (sym_SFC_network, 7612), (sym_initial_step, 7439), (sym_config_init, 3047),
     (sym_variable_access, 7530), (sym_func_call, 2961), (sym_stmt_list, 7970), (sym__stmt, 2024),
     (sym_assign, 3150), (sym_if_stmt, 3150), (sym_case_stmt, 3150), (sym_for_stmt, 3150),
     (sym_while_stmt, 3150), (sym_repeat_stmt, 3150), (sym_raise_stmt, 3150), (sym_try_stmt, 3150),
     (sym_ERR_clause_outside_try, 3150), (sym_begin_path_expression, 2943), (sym_invocation, 2934),
     (sym_any_invocation, 2935), (sym_this_invocation, 2641), (sym_super_invocation, 2641),
     (sym_super_body_invocation, 2935), (sym_path_expression, 2627), (sym_field_expression, 2373),
     (sym_index_expression, 2373), (sym_ladder_diagram, 7970), (sym_fb_diagram, 7970),
     (aux_sym_ERR_fb_variables_after_method_repeat1, 2343), (aux_sym_func_decl_repeat1, 7194),
     (aux_sym_fb_decl_repeat3, 2549), (aux_sym_SFC_repeat1, 7612),
     (aux_sym_stmt_list_repeat1, 2024), (aux_sym_ladder_diagram_repeat1, 8009),
     (aux_sym_fb_diagram_repeat1, 8013), (sym_identifier, 298),
     (aux_sym_ERR_unexpected_this_in_path_token1, 304),
     (aux_sym_ERR_unexpected_super_in_path_token1, 306), (sym_line_comment, 3),
     (anon_sym_LBRACE, 308), (aux_sym_test_pragma_token1, 9), (aux_sym_once_pragma_token1, 11),
     (aux_sym_must_call_pragma_token1, 13), (aux_sym_export_pragma_token1, 15),
     (anon_sym_SEMI, 310), (anon_sym_PERCENT, 312), (aux_sym_input_decls_token1, 314),
     (aux_sym_output_decls_token1, 316), (aux_sym_in_out_decls_token1, 318),
     (aux_sym_var_decls_token1, 320), (aux_sym_temp_var_decls_token1, 322),
     (aux_sym_external_var_decls_token1, 324), (aux_sym_global_var_decls_token1, 326),
     (aux_sym_fb_decl_token4, 1278), (aux_sym_method_decl_token1, 330),
     (aux_sym_prog_access_decls_token1, 332), (aux_sym_initial_step_token1, 334),
     (aux_sym_config_init_token1, 336), (aux_sym__stmt_token1, 340), (aux_sym__stmt_token2, 340),
     (aux_sym__stmt_token3, 340), (aux_sym_if_stmt_token1, 342), (aux_sym_case_stmt_token1, 344),
     (aux_sym_for_stmt_token1, 346), (aux_sym_while_stmt_token1, 348),
     (aux_sym_repeat_stmt_token1, 350), (aux_sym_raise_stmt_token1, 352),
     (aux_sym_try_stmt_token1, 354), (aux_sym_try_stmt_token2, 356),
     (aux_sym_catch_clause_token1, 356), (aux_sym_finally_clause_token1, 356), (sym_ld_rung, 358),
     (sym_fbd_network, 360), (sym_c_style_comment, 3), (sym_pascal_style_comment, 3),
     (sym_pragma, 3)]"

lemma ts_parse_row_474_scan: "row_scan tokens_63_2 0 ts_parse_row_474 = Some (Suc (Suc (Suc (Suc 0))))"
  unfolding ts_parse_row_474_def by simp

text \<open>Lines 108884 to 108996.\<close>

definition ts_parse_row_475 :: parse_row where
  "ts_parse_row_475 =
    [(sym_ERR_assign_func_call, 7530), (sym_ERR_unexpected_this_in_path, 2372),
     (sym_ERR_unexpected_super_in_path, 2372), (sym_ERR_fb_variables_after_method, 1374),
     (sym_ERR_var_access_not_allowed, 3160), (sym_ERR_var_config_not_allowed, 3160),
     (sym_ERR_var_global_not_allowed, 3160), (sym_ERR_method_decl_in_body, 3150),
     (sym_extern_pragma, 7490), (sym_wasm_pragma, 3150), (sym_warn_pragma, 7490),
     (sym_allow_pragma, 3140), (sym_test_pragma, 7490), (sym_once_pragma, 7490),
     (sym_must_call_pragma, 7490), (sym_export_pragma, 7490), (sym_pou_pragma, 7194),
     (sym_direct_variable, 7675), (sym_deref_expression, 2373), (sym_variable, 7599),
     (sym_var_access, 2373), (sym_in_out_decls, 3160), (sym_var_decls, 3160),
     (sym_retain_var_decls, 3160), (sym_temp_var_decls, 3160), (sym_external_var_decls, 3160),
     (sym_global_var_decls, 2947), (sym_loc_partly_var_decl, 3160), (sym__fb_variables, 2347),
     (sym_fb_input_decls, 3160), (sym_fb_output_decls, 3160), (sym_no_retain_var_decls, 3160),
     (sym_fb_body, 9916), (sym_method_decl, 621), (sym_prog_access_decls, 3043), (sym_SFC, 7970),
     (sym_SFC_network, 7612), (sym_initial_step, 7439), (sym_config_init, 3047),
     (sym_variable_access, 7530), (sym_func_call, 2961), (sym_stmt_list, 7970), (sym__stmt, 2024),
     (sym_assign, 3150), (sym_if_stmt, 3150), (sym_case_stmt, 3150), (sym_for_stmt, 3150),
     (sym_while_stmt, 3150), (sym_repeat_stmt, 3150), (sym_raise_stmt, 3150), (sym_try_stmt, 3150),
     (sym_ERR_clause_outside_try, 3150), (sym_begin_path_expression, 2943), (sym_invocation, 2934),
     (sym_any_invocation, 2935), (sym_this_invocation, 2641), (sym_super_invocation, 2641),
     (sym_super_body_invocation, 2935), (sym_path_expression, 2627), (sym_field_expression, 2373),
     (sym_index_expression, 2373), (sym_ladder_diagram, 7970), (sym_fb_diagram, 7970),
     (aux_sym_ERR_fb_variables_after_method_repeat1, 2347), (aux_sym_func_decl_repeat1, 7194),
     (aux_sym_fb_decl_repeat3, 621), (aux_sym_SFC_repeat1, 7612), (aux_sym_stmt_list_repeat1, 2024),
     (aux_sym_ladder_diagram_repeat1, 8009), (aux_sym_fb_diagram_repeat1, 8013),
     (sym_identifier, 298), (aux_sym_ERR_unexpected_this_in_path_token1, 304),
     (aux_sym_ERR_unexpected_super_in_path_token1, 306), (sym_line_comment, 3),
     (anon_sym_LBRACE, 308), (aux_sym_test_pragma_token1, 9), (aux_sym_once_pragma_token1, 11),
     (aux_sym_must_call_pragma_token1, 13), (aux_sym_export_pragma_token1, 15),
     (anon_sym_SEMI, 310), (anon_sym_PERCENT, 312), (aux_sym_input_decls_token1, 314),
     (aux_sym_output_decls_token1, 316), (aux_sym_in_out_decls_token1, 318),
     (aux_sym_var_decls_token1, 320), (aux_sym_temp_var_decls_token1, 322),
     (aux_sym_external_var_decls_token1, 324), (aux_sym_global_var_decls_token1, 326),
     (aux_sym_fb_decl_token4, 1280), (aux_sym_method_decl_token1, 330),
     (aux_sym_prog_access_decls_token1, 332), (aux_sym_initial_step_token1, 334),
     (aux_sym_config_init_token1, 336), (aux_sym__stmt_token1, 340), (aux_sym__stmt_token2, 340),
     (aux_sym__stmt_token3, 340), (aux_sym_if_stmt_token1, 342), (aux_sym_case_stmt_token1, 344),
     (aux_sym_for_stmt_token1, 346), (aux_sym_while_stmt_token1, 348),
     (aux_sym_repeat_stmt_token1, 350), (aux_sym_raise_stmt_token1, 352),
     (aux_sym_try_stmt_token1, 354), (aux_sym_try_stmt_token2, 356),
     (aux_sym_catch_clause_token1, 356), (aux_sym_finally_clause_token1, 356), (sym_ld_rung, 358),
     (sym_fbd_network, 360), (sym_c_style_comment, 3), (sym_pascal_style_comment, 3),
     (sym_pragma, 3)]"

lemma ts_parse_row_475_scan: "row_scan tokens_63_2 0 ts_parse_row_475 = Some (Suc (Suc (Suc (Suc 0))))"
  unfolding ts_parse_row_475_def by simp

text \<open>Lines 108997 to 109109.\<close>

definition ts_parse_row_476 :: parse_row where
  "ts_parse_row_476 =
    [(sym_ERR_assign_func_call, 7530), (sym_ERR_unexpected_this_in_path, 2372),
     (sym_ERR_unexpected_super_in_path, 2372), (sym_ERR_fb_variables_after_method, 1375),
     (sym_ERR_var_access_not_allowed, 3160), (sym_ERR_var_config_not_allowed, 3160),
     (sym_ERR_var_global_not_allowed, 3160), (sym_ERR_method_decl_in_body, 3150),
     (sym_extern_pragma, 7490), (sym_wasm_pragma, 3150), (sym_warn_pragma, 7490),
     (sym_allow_pragma, 3140), (sym_test_pragma, 7490), (sym_once_pragma, 7490),
     (sym_must_call_pragma, 7490), (sym_export_pragma, 7490), (sym_pou_pragma, 7194),
     (sym_direct_variable, 7675), (sym_deref_expression, 2373), (sym_variable, 7599),
     (sym_var_access, 2373), (sym_in_out_decls, 3160), (sym_var_decls, 3160),
     (sym_retain_var_decls, 3160), (sym_temp_var_decls, 3160), (sym_external_var_decls, 3160),
     (sym_global_var_decls, 2947), (sym_loc_partly_var_decl, 3160), (sym__fb_variables, 2343),
     (sym_fb_input_decls, 3160), (sym_fb_output_decls, 3160), (sym_no_retain_var_decls, 3160),
     (sym_fb_body, 9931), (sym_method_decl, 2549), (sym_prog_access_decls, 3043), (sym_SFC, 7970),
     (sym_SFC_network, 7612), (sym_initial_step, 7439), (sym_config_init, 3047),
     (sym_variable_access, 7530), (sym_func_call, 2961), (sym_stmt_list, 7970), (sym__stmt, 2024),
     (sym_assign, 3150), (sym_if_stmt, 3150), (sym_case_stmt, 3150), (sym_for_stmt, 3150),
     (sym_while_stmt, 3150), (sym_repeat_stmt, 3150), (sym_raise_stmt, 3150), (sym_try_stmt, 3150),
     (sym_ERR_clause_outside_try, 3150), (sym_begin_path_expression, 2943), (sym_invocation, 2934),
     (sym_any_invocation, 2935), (sym_this_invocation, 2641), (sym_super_invocation, 2641),
     (sym_super_body_invocation, 2935), (sym_path_expression, 2627), (sym_field_expression, 2373),
     (sym_index_expression, 2373), (sym_ladder_diagram, 7970), (sym_fb_diagram, 7970),
     (aux_sym_ERR_fb_variables_after_method_repeat1, 2343), (aux_sym_func_decl_repeat1, 7194),
     (aux_sym_fb_decl_repeat3, 2549), (aux_sym_SFC_repeat1, 7612),
     (aux_sym_stmt_list_repeat1, 2024), (aux_sym_ladder_diagram_repeat1, 8009),
     (aux_sym_fb_diagram_repeat1, 8013), (sym_identifier, 298),
     (aux_sym_ERR_unexpected_this_in_path_token1, 304),
     (aux_sym_ERR_unexpected_super_in_path_token1, 306), (sym_line_comment, 3),
     (anon_sym_LBRACE, 308), (aux_sym_test_pragma_token1, 9), (aux_sym_once_pragma_token1, 11),
     (aux_sym_must_call_pragma_token1, 13), (aux_sym_export_pragma_token1, 15),
     (anon_sym_SEMI, 310), (anon_sym_PERCENT, 312), (aux_sym_input_decls_token1, 314),
     (aux_sym_output_decls_token1, 316), (aux_sym_in_out_decls_token1, 318),
     (aux_sym_var_decls_token1, 320), (aux_sym_temp_var_decls_token1, 322),
     (aux_sym_external_var_decls_token1, 324), (aux_sym_global_var_decls_token1, 326),
     (aux_sym_fb_decl_token4, 1282), (aux_sym_method_decl_token1, 330),
     (aux_sym_prog_access_decls_token1, 332), (aux_sym_initial_step_token1, 334),
     (aux_sym_config_init_token1, 336), (aux_sym__stmt_token1, 340), (aux_sym__stmt_token2, 340),
     (aux_sym__stmt_token3, 340), (aux_sym_if_stmt_token1, 342), (aux_sym_case_stmt_token1, 344),
     (aux_sym_for_stmt_token1, 346), (aux_sym_while_stmt_token1, 348),
     (aux_sym_repeat_stmt_token1, 350), (aux_sym_raise_stmt_token1, 352),
     (aux_sym_try_stmt_token1, 354), (aux_sym_try_stmt_token2, 356),
     (aux_sym_catch_clause_token1, 356), (aux_sym_finally_clause_token1, 356), (sym_ld_rung, 358),
     (sym_fbd_network, 360), (sym_c_style_comment, 3), (sym_pascal_style_comment, 3),
     (sym_pragma, 3)]"

lemma ts_parse_row_476_scan: "row_scan tokens_63_2 0 ts_parse_row_476 = Some (Suc (Suc (Suc (Suc 0))))"
  unfolding ts_parse_row_476_def by simp

text \<open>Lines 109110 to 109222.\<close>

definition ts_parse_row_477 :: parse_row where
  "ts_parse_row_477 =
    [(sym_ERR_assign_func_call, 7530), (sym_ERR_unexpected_this_in_path, 2372),
     (sym_ERR_unexpected_super_in_path, 2372), (sym_ERR_fb_variables_after_method, 1592),
     (sym_ERR_var_access_not_allowed, 3160), (sym_ERR_var_config_not_allowed, 3160),
     (sym_ERR_var_global_not_allowed, 3160), (sym_ERR_method_decl_in_body, 3150),
     (sym_extern_pragma, 7490), (sym_wasm_pragma, 3150), (sym_warn_pragma, 7490),
     (sym_allow_pragma, 3140), (sym_test_pragma, 7490), (sym_once_pragma, 7490),
     (sym_must_call_pragma, 7490), (sym_export_pragma, 7490), (sym_pou_pragma, 7194),
     (sym_direct_variable, 7675), (sym_deref_expression, 2373), (sym_variable, 7599),
     (sym_var_access, 2373), (sym_in_out_decls, 3160), (sym_var_decls, 3160),
     (sym_retain_var_decls, 3160), (sym_temp_var_decls, 3160), (sym_external_var_decls, 3160),
     (sym_global_var_decls, 2947), (sym_loc_partly_var_decl, 3160), (sym__fb_variables, 2343),
     (sym_fb_input_decls, 3160), (sym_fb_output_decls, 3160), (sym_no_retain_var_decls, 3160),
     (sym_fb_body, 8777), (sym_method_decl, 2549), (sym_prog_access_decls, 3043), (sym_SFC, 7970),
     (sym_SFC_network, 7612), (sym_initial_step, 7439), (sym_config_init, 3047),
     (sym_variable_access, 7530), (sym_func_call, 2961), (sym_stmt_list, 7970), (sym__stmt, 2024),
     (sym_assign, 3150), (sym_if_stmt, 3150), (sym_case_stmt, 3150), (sym_for_stmt, 3150),
     (sym_while_stmt, 3150), (sym_repeat_stmt, 3150), (sym_raise_stmt, 3150), (sym_try_stmt, 3150),
     (sym_ERR_clause_outside_try, 3150), (sym_begin_path_expression, 2943), (sym_invocation, 2934),
     (sym_any_invocation, 2935), (sym_this_invocation, 2641), (sym_super_invocation, 2641),
     (sym_super_body_invocation, 2935), (sym_path_expression, 2627), (sym_field_expression, 2373),
     (sym_index_expression, 2373), (sym_ladder_diagram, 7970), (sym_fb_diagram, 7970),
     (aux_sym_ERR_fb_variables_after_method_repeat1, 2343), (aux_sym_func_decl_repeat1, 7194),
     (aux_sym_fb_decl_repeat3, 2549), (aux_sym_SFC_repeat1, 7612),
     (aux_sym_stmt_list_repeat1, 2024), (aux_sym_ladder_diagram_repeat1, 8009),
     (aux_sym_fb_diagram_repeat1, 8013), (sym_identifier, 298),
     (aux_sym_ERR_unexpected_this_in_path_token1, 304),
     (aux_sym_ERR_unexpected_super_in_path_token1, 306), (sym_line_comment, 3),
     (anon_sym_LBRACE, 308), (aux_sym_test_pragma_token1, 9), (aux_sym_once_pragma_token1, 11),
     (aux_sym_must_call_pragma_token1, 13), (aux_sym_export_pragma_token1, 15),
     (anon_sym_SEMI, 310), (anon_sym_PERCENT, 312), (aux_sym_input_decls_token1, 314),
     (aux_sym_output_decls_token1, 316), (aux_sym_in_out_decls_token1, 318),
     (aux_sym_var_decls_token1, 320), (aux_sym_temp_var_decls_token1, 322),
     (aux_sym_external_var_decls_token1, 324), (aux_sym_global_var_decls_token1, 326),
     (aux_sym_fb_decl_token4, 1284), (aux_sym_method_decl_token1, 330),
     (aux_sym_prog_access_decls_token1, 332), (aux_sym_initial_step_token1, 334),
     (aux_sym_config_init_token1, 336), (aux_sym__stmt_token1, 340), (aux_sym__stmt_token2, 340),
     (aux_sym__stmt_token3, 340), (aux_sym_if_stmt_token1, 342), (aux_sym_case_stmt_token1, 344),
     (aux_sym_for_stmt_token1, 346), (aux_sym_while_stmt_token1, 348),
     (aux_sym_repeat_stmt_token1, 350), (aux_sym_raise_stmt_token1, 352),
     (aux_sym_try_stmt_token1, 354), (aux_sym_try_stmt_token2, 356),
     (aux_sym_catch_clause_token1, 356), (aux_sym_finally_clause_token1, 356), (sym_ld_rung, 358),
     (sym_fbd_network, 360), (sym_c_style_comment, 3), (sym_pascal_style_comment, 3),
     (sym_pragma, 3)]"

lemma ts_parse_row_477_scan: "row_scan tokens_63_2 0 ts_parse_row_477 = Some (Suc (Suc (Suc (Suc 0))))"
  unfolding ts_parse_row_477_def by simp

text \<open>Lines 109223 to 109335.\<close>

definition ts_parse_row_478 :: parse_row where
  "ts_parse_row_478 =
    [(sym_ERR_assign_func_call, 7530), (sym_ERR_unexpected_this_in_path, 2372),
     (sym_ERR_unexpected_super_in_path, 2372), (sym_ERR_fb_variables_after_method, 1377),
     (sym_ERR_var_access_not_allowed, 3160), (sym_ERR_var_config_not_allowed, 3160),
     (sym_ERR_var_global_not_allowed, 3160), (sym_ERR_method_decl_in_body, 3150),
     (sym_extern_pragma, 7490), (sym_wasm_pragma, 3150), (sym_warn_pragma, 7490),
     (sym_allow_pragma, 3140), (sym_test_pragma, 7490), (sym_once_pragma, 7490),
     (sym_must_call_pragma, 7490), (sym_export_pragma, 7490), (sym_pou_pragma, 7194),
     (sym_direct_variable, 7675), (sym_deref_expression, 2373), (sym_variable, 7599),
     (sym_var_access, 2373), (sym_in_out_decls, 3160), (sym_var_decls, 3160),
     (sym_retain_var_decls, 3160), (sym_temp_var_decls, 3160), (sym_external_var_decls, 3160),
     (sym_global_var_decls, 2947), (sym_loc_partly_var_decl, 3160), (sym__fb_variables, 2343),
     (sym_fb_input_decls, 3160), (sym_fb_output_decls, 3160), (sym_no_retain_var_decls, 3160),
     (sym_fb_body, 8400), (sym_method_decl, 2549), (sym_prog_access_decls, 3043), (sym_SFC, 7970),
     (sym_SFC_network, 7612), (sym_initial_step, 7439), (sym_config_init, 3047),
     (sym_variable_access, 7530), (sym_func_call, 2961), (sym_stmt_list, 7970), (sym__stmt, 2024),
     (sym_assign, 3150), (sym_if_stmt, 3150), (sym_case_stmt, 3150), (sym_for_stmt, 3150),
     (sym_while_stmt, 3150), (sym_repeat_stmt, 3150), (sym_raise_stmt, 3150), (sym_try_stmt, 3150),
     (sym_ERR_clause_outside_try, 3150), (sym_begin_path_expression, 2943), (sym_invocation, 2934),
     (sym_any_invocation, 2935), (sym_this_invocation, 2641), (sym_super_invocation, 2641),
     (sym_super_body_invocation, 2935), (sym_path_expression, 2627), (sym_field_expression, 2373),
     (sym_index_expression, 2373), (sym_ladder_diagram, 7970), (sym_fb_diagram, 7970),
     (aux_sym_ERR_fb_variables_after_method_repeat1, 2343), (aux_sym_func_decl_repeat1, 7194),
     (aux_sym_fb_decl_repeat3, 2549), (aux_sym_SFC_repeat1, 7612),
     (aux_sym_stmt_list_repeat1, 2024), (aux_sym_ladder_diagram_repeat1, 8009),
     (aux_sym_fb_diagram_repeat1, 8013), (sym_identifier, 298),
     (aux_sym_ERR_unexpected_this_in_path_token1, 304),
     (aux_sym_ERR_unexpected_super_in_path_token1, 306), (sym_line_comment, 3),
     (anon_sym_LBRACE, 308), (aux_sym_test_pragma_token1, 9), (aux_sym_once_pragma_token1, 11),
     (aux_sym_must_call_pragma_token1, 13), (aux_sym_export_pragma_token1, 15),
     (anon_sym_SEMI, 310), (anon_sym_PERCENT, 312), (aux_sym_input_decls_token1, 314),
     (aux_sym_output_decls_token1, 316), (aux_sym_in_out_decls_token1, 318),
     (aux_sym_var_decls_token1, 320), (aux_sym_temp_var_decls_token1, 322),
     (aux_sym_external_var_decls_token1, 324), (aux_sym_global_var_decls_token1, 326),
     (aux_sym_fb_decl_token4, 1286), (aux_sym_method_decl_token1, 330),
     (aux_sym_prog_access_decls_token1, 332), (aux_sym_initial_step_token1, 334),
     (aux_sym_config_init_token1, 336), (aux_sym__stmt_token1, 340), (aux_sym__stmt_token2, 340),
     (aux_sym__stmt_token3, 340), (aux_sym_if_stmt_token1, 342), (aux_sym_case_stmt_token1, 344),
     (aux_sym_for_stmt_token1, 346), (aux_sym_while_stmt_token1, 348),
     (aux_sym_repeat_stmt_token1, 350), (aux_sym_raise_stmt_token1, 352),
     (aux_sym_try_stmt_token1, 354), (aux_sym_try_stmt_token2, 356),
     (aux_sym_catch_clause_token1, 356), (aux_sym_finally_clause_token1, 356), (sym_ld_rung, 358),
     (sym_fbd_network, 360), (sym_c_style_comment, 3), (sym_pascal_style_comment, 3),
     (sym_pragma, 3)]"

lemma ts_parse_row_478_scan: "row_scan tokens_63_2 0 ts_parse_row_478 = Some (Suc (Suc (Suc (Suc 0))))"
  unfolding ts_parse_row_478_def by simp

text \<open>Lines 109336 to 109448.\<close>

definition ts_parse_row_479 :: parse_row where
  "ts_parse_row_479 =
    [(sym_ERR_assign_func_call, 7530), (sym_ERR_unexpected_this_in_path, 2372),
     (sym_ERR_unexpected_super_in_path, 2372), (sym_ERR_fb_variables_after_method, 1378),
     (sym_ERR_var_access_not_allowed, 3160), (sym_ERR_var_config_not_allowed, 3160),
     (sym_ERR_var_global_not_allowed, 3160), (sym_ERR_method_decl_in_body, 3150),
     (sym_extern_pragma, 7490), (sym_wasm_pragma, 3150), (sym_warn_pragma, 7490),
     (sym_allow_pragma, 3140), (sym_test_pragma, 7490), (sym_once_pragma, 7490),
     (sym_must_call_pragma, 7490), (sym_export_pragma, 7490), (sym_pou_pragma, 7194),
     (sym_direct_variable, 7675), (sym_deref_expression, 2373), (sym_variable, 7599),
     (sym_var_access, 2373), (sym_in_out_decls, 3160), (sym_var_decls, 3160),
     (sym_retain_var_decls, 3160), (sym_temp_var_decls, 3160), (sym_external_var_decls, 3160),
     (sym_global_var_decls, 2947), (sym_loc_partly_var_decl, 3160), (sym__fb_variables, 2343),
     (sym_fb_input_decls, 3160), (sym_fb_output_decls, 3160), (sym_no_retain_var_decls, 3160),
     (sym_fb_body, 8467), (sym_method_decl, 2549), (sym_prog_access_decls, 3043), (sym_SFC, 7970),
     (sym_SFC_network, 7612), (sym_initial_step, 7439), (sym_config_init, 3047),
     (sym_variable_access, 7530), (sym_func_call, 2961), (sym_stmt_list, 7970), (sym__stmt, 2024),
     (sym_assign, 3150), (sym_if_stmt, 3150), (sym_case_stmt, 3150), (sym_for_stmt, 3150),
     (sym_while_stmt, 3150), (sym_repeat_stmt, 3150), (sym_raise_stmt, 3150), (sym_try_stmt, 3150),
     (sym_ERR_clause_outside_try, 3150), (sym_begin_path_expression, 2943), (sym_invocation, 2934),
     (sym_any_invocation, 2935), (sym_this_invocation, 2641), (sym_super_invocation, 2641),
     (sym_super_body_invocation, 2935), (sym_path_expression, 2627), (sym_field_expression, 2373),
     (sym_index_expression, 2373), (sym_ladder_diagram, 7970), (sym_fb_diagram, 7970),
     (aux_sym_ERR_fb_variables_after_method_repeat1, 2343), (aux_sym_func_decl_repeat1, 7194),
     (aux_sym_fb_decl_repeat3, 2549), (aux_sym_SFC_repeat1, 7612),
     (aux_sym_stmt_list_repeat1, 2024), (aux_sym_ladder_diagram_repeat1, 8009),
     (aux_sym_fb_diagram_repeat1, 8013), (sym_identifier, 298),
     (aux_sym_ERR_unexpected_this_in_path_token1, 304),
     (aux_sym_ERR_unexpected_super_in_path_token1, 306), (sym_line_comment, 3),
     (anon_sym_LBRACE, 308), (aux_sym_test_pragma_token1, 9), (aux_sym_once_pragma_token1, 11),
     (aux_sym_must_call_pragma_token1, 13), (aux_sym_export_pragma_token1, 15),
     (anon_sym_SEMI, 310), (anon_sym_PERCENT, 312), (aux_sym_input_decls_token1, 314),
     (aux_sym_output_decls_token1, 316), (aux_sym_in_out_decls_token1, 318),
     (aux_sym_var_decls_token1, 320), (aux_sym_temp_var_decls_token1, 322),
     (aux_sym_external_var_decls_token1, 324), (aux_sym_global_var_decls_token1, 326),
     (aux_sym_fb_decl_token4, 1288), (aux_sym_method_decl_token1, 330),
     (aux_sym_prog_access_decls_token1, 332), (aux_sym_initial_step_token1, 334),
     (aux_sym_config_init_token1, 336), (aux_sym__stmt_token1, 340), (aux_sym__stmt_token2, 340),
     (aux_sym__stmt_token3, 340), (aux_sym_if_stmt_token1, 342), (aux_sym_case_stmt_token1, 344),
     (aux_sym_for_stmt_token1, 346), (aux_sym_while_stmt_token1, 348),
     (aux_sym_repeat_stmt_token1, 350), (aux_sym_raise_stmt_token1, 352),
     (aux_sym_try_stmt_token1, 354), (aux_sym_try_stmt_token2, 356),
     (aux_sym_catch_clause_token1, 356), (aux_sym_finally_clause_token1, 356), (sym_ld_rung, 358),
     (sym_fbd_network, 360), (sym_c_style_comment, 3), (sym_pascal_style_comment, 3),
     (sym_pragma, 3)]"

lemma ts_parse_row_479_scan: "row_scan tokens_63_2 0 ts_parse_row_479 = Some (Suc (Suc (Suc (Suc 0))))"
  unfolding ts_parse_row_479_def by simp

text \<open>Lines 109449 to 109561.\<close>

definition ts_parse_row_480 :: parse_row where
  "ts_parse_row_480 =
    [(sym_ERR_assign_func_call, 7530), (sym_ERR_unexpected_this_in_path, 2372),
     (sym_ERR_unexpected_super_in_path, 2372), (sym_ERR_fb_variables_after_method, 1379),
     (sym_ERR_var_access_not_allowed, 3160), (sym_ERR_var_config_not_allowed, 3160),
     (sym_ERR_var_global_not_allowed, 3160), (sym_ERR_method_decl_in_body, 3150),
     (sym_extern_pragma, 7490), (sym_wasm_pragma, 3150), (sym_warn_pragma, 7490),
     (sym_allow_pragma, 3140), (sym_test_pragma, 7490), (sym_once_pragma, 7490),
     (sym_must_call_pragma, 7490), (sym_export_pragma, 7490), (sym_pou_pragma, 7194),
     (sym_direct_variable, 7675), (sym_deref_expression, 2373), (sym_variable, 7599),
     (sym_var_access, 2373), (sym_in_out_decls, 3160), (sym_var_decls, 3160),
     (sym_retain_var_decls, 3160), (sym_temp_var_decls, 3160), (sym_external_var_decls, 3160),
     (sym_global_var_decls, 2947), (sym_loc_partly_var_decl, 3160), (sym__fb_variables, 2347),
     (sym_fb_input_decls, 3160), (sym_fb_output_decls, 3160), (sym_no_retain_var_decls, 3160),
     (sym_fb_body, 8524), (sym_method_decl, 623), (sym_prog_access_decls, 3043), (sym_SFC, 7970),
     (sym_SFC_network, 7612), (sym_initial_step, 7439), (sym_config_init, 3047),
     (sym_variable_access, 7530), (sym_func_call, 2961), (sym_stmt_list, 7970), (sym__stmt, 2024),
     (sym_assign, 3150), (sym_if_stmt, 3150), (sym_case_stmt, 3150), (sym_for_stmt, 3150),
     (sym_while_stmt, 3150), (sym_repeat_stmt, 3150), (sym_raise_stmt, 3150), (sym_try_stmt, 3150),
     (sym_ERR_clause_outside_try, 3150), (sym_begin_path_expression, 2943), (sym_invocation, 2934),
     (sym_any_invocation, 2935), (sym_this_invocation, 2641), (sym_super_invocation, 2641),
     (sym_super_body_invocation, 2935), (sym_path_expression, 2627), (sym_field_expression, 2373),
     (sym_index_expression, 2373), (sym_ladder_diagram, 7970), (sym_fb_diagram, 7970),
     (aux_sym_ERR_fb_variables_after_method_repeat1, 2347), (aux_sym_func_decl_repeat1, 7194),
     (aux_sym_fb_decl_repeat3, 623), (aux_sym_SFC_repeat1, 7612), (aux_sym_stmt_list_repeat1, 2024),
     (aux_sym_ladder_diagram_repeat1, 8009), (aux_sym_fb_diagram_repeat1, 8013),
     (sym_identifier, 298), (aux_sym_ERR_unexpected_this_in_path_token1, 304),
     (aux_sym_ERR_unexpected_super_in_path_token1, 306), (sym_line_comment, 3),
     (anon_sym_LBRACE, 308), (aux_sym_test_pragma_token1, 9), (aux_sym_once_pragma_token1, 11),
     (aux_sym_must_call_pragma_token1, 13), (aux_sym_export_pragma_token1, 15),
     (anon_sym_SEMI, 310), (anon_sym_PERCENT, 312), (aux_sym_input_decls_token1, 314),
     (aux_sym_output_decls_token1, 316), (aux_sym_in_out_decls_token1, 318),
     (aux_sym_var_decls_token1, 320), (aux_sym_temp_var_decls_token1, 322),
     (aux_sym_external_var_decls_token1, 324), (aux_sym_global_var_decls_token1, 326),
     (aux_sym_fb_decl_token4, 1290), (aux_sym_method_decl_token1, 330),
     (aux_sym_prog_access_decls_token1, 332), (aux_sym_initial_step_token1, 334),
     (aux_sym_config_init_token1, 336), (aux_sym__stmt_token1, 340), (aux_sym__stmt_token2, 340),
     (aux_sym__stmt_token3, 340), (aux_sym_if_stmt_token1, 342), (aux_sym_case_stmt_token1, 344),
     (aux_sym_for_stmt_token1, 346), (aux_sym_while_stmt_token1, 348),
     (aux_sym_repeat_stmt_token1, 350), (aux_sym_raise_stmt_token1, 352),
     (aux_sym_try_stmt_token1, 354), (aux_sym_try_stmt_token2, 356),
     (aux_sym_catch_clause_token1, 356), (aux_sym_finally_clause_token1, 356), (sym_ld_rung, 358),
     (sym_fbd_network, 360), (sym_c_style_comment, 3), (sym_pascal_style_comment, 3),
     (sym_pragma, 3)]"

lemma ts_parse_row_480_scan: "row_scan tokens_63_2 0 ts_parse_row_480 = Some (Suc (Suc (Suc (Suc 0))))"
  unfolding ts_parse_row_480_def by simp

text \<open>Lines 109562 to 109674.\<close>

definition ts_parse_row_481 :: parse_row where
  "ts_parse_row_481 =
    [(sym_ERR_assign_func_call, 7530), (sym_ERR_unexpected_this_in_path, 2372),
     (sym_ERR_unexpected_super_in_path, 2372), (sym_ERR_fb_variables_after_method, 1381),
     (sym_ERR_var_access_not_allowed, 3160), (sym_ERR_var_config_not_allowed, 3160),
     (sym_ERR_var_global_not_allowed, 3160), (sym_ERR_method_decl_in_body, 3150),
     (sym_extern_pragma, 7490), (sym_wasm_pragma, 3150), (sym_warn_pragma, 7490),
     (sym_allow_pragma, 3140), (sym_test_pragma, 7490), (sym_once_pragma, 7490),
     (sym_must_call_pragma, 7490), (sym_export_pragma, 7490), (sym_pou_pragma, 7194),
     (sym_direct_variable, 7675), (sym_deref_expression, 2373), (sym_variable, 7599),
     (sym_var_access, 2373), (sym_in_out_decls, 3160), (sym_var_decls, 3160),
     (sym_retain_var_decls, 3160), (sym_temp_var_decls, 3160), (sym_external_var_decls, 3160),
     (sym_global_var_decls, 2947), (sym_loc_partly_var_decl, 3160), (sym__fb_variables, 2343),
     (sym_fb_input_decls, 3160), (sym_fb_output_decls, 3160), (sym_no_retain_var_decls, 3160),
     (sym_fb_body, 8539), (sym_method_decl, 2549), (sym_prog_access_decls, 3043), (sym_SFC, 7970),
     (sym_SFC_network, 7612), (sym_initial_step, 7439), (sym_config_init, 3047),
     (sym_variable_access, 7530), (sym_func_call, 2961), (sym_stmt_list, 7970), (sym__stmt, 2024),
     (sym_assign, 3150), (sym_if_stmt, 3150), (sym_case_stmt, 3150), (sym_for_stmt, 3150),
     (sym_while_stmt, 3150), (sym_repeat_stmt, 3150), (sym_raise_stmt, 3150), (sym_try_stmt, 3150),
     (sym_ERR_clause_outside_try, 3150), (sym_begin_path_expression, 2943), (sym_invocation, 2934),
     (sym_any_invocation, 2935), (sym_this_invocation, 2641), (sym_super_invocation, 2641),
     (sym_super_body_invocation, 2935), (sym_path_expression, 2627), (sym_field_expression, 2373),
     (sym_index_expression, 2373), (sym_ladder_diagram, 7970), (sym_fb_diagram, 7970),
     (aux_sym_ERR_fb_variables_after_method_repeat1, 2343), (aux_sym_func_decl_repeat1, 7194),
     (aux_sym_fb_decl_repeat3, 2549), (aux_sym_SFC_repeat1, 7612),
     (aux_sym_stmt_list_repeat1, 2024), (aux_sym_ladder_diagram_repeat1, 8009),
     (aux_sym_fb_diagram_repeat1, 8013), (sym_identifier, 298),
     (aux_sym_ERR_unexpected_this_in_path_token1, 304),
     (aux_sym_ERR_unexpected_super_in_path_token1, 306), (sym_line_comment, 3),
     (anon_sym_LBRACE, 308), (aux_sym_test_pragma_token1, 9), (aux_sym_once_pragma_token1, 11),
     (aux_sym_must_call_pragma_token1, 13), (aux_sym_export_pragma_token1, 15),
     (anon_sym_SEMI, 310), (anon_sym_PERCENT, 312), (aux_sym_input_decls_token1, 314),
     (aux_sym_output_decls_token1, 316), (aux_sym_in_out_decls_token1, 318),
     (aux_sym_var_decls_token1, 320), (aux_sym_temp_var_decls_token1, 322),
     (aux_sym_external_var_decls_token1, 324), (aux_sym_global_var_decls_token1, 326),
     (aux_sym_fb_decl_token4, 1292), (aux_sym_method_decl_token1, 330),
     (aux_sym_prog_access_decls_token1, 332), (aux_sym_initial_step_token1, 334),
     (aux_sym_config_init_token1, 336), (aux_sym__stmt_token1, 340), (aux_sym__stmt_token2, 340),
     (aux_sym__stmt_token3, 340), (aux_sym_if_stmt_token1, 342), (aux_sym_case_stmt_token1, 344),
     (aux_sym_for_stmt_token1, 346), (aux_sym_while_stmt_token1, 348),
     (aux_sym_repeat_stmt_token1, 350), (aux_sym_raise_stmt_token1, 352),
     (aux_sym_try_stmt_token1, 354), (aux_sym_try_stmt_token2, 356),
     (aux_sym_catch_clause_token1, 356), (aux_sym_finally_clause_token1, 356), (sym_ld_rung, 358),
     (sym_fbd_network, 360), (sym_c_style_comment, 3), (sym_pascal_style_comment, 3),
     (sym_pragma, 3)]"

lemma ts_parse_row_481_scan: "row_scan tokens_63_2 0 ts_parse_row_481 = Some (Suc (Suc (Suc (Suc 0))))"
  unfolding ts_parse_row_481_def by simp

text \<open>Lines 109675 to 109787.\<close>

definition ts_parse_row_482 :: parse_row where
  "ts_parse_row_482 =
    [(sym_ERR_assign_func_call, 7530), (sym_ERR_unexpected_this_in_path, 2372),
     (sym_ERR_unexpected_super_in_path, 2372), (sym_ERR_fb_variables_after_method, 1225),
     (sym_ERR_var_access_not_allowed, 3160), (sym_ERR_var_config_not_allowed, 3160),
     (sym_ERR_var_global_not_allowed, 3160), (sym_ERR_method_decl_in_body, 3150),
     (sym_extern_pragma, 7490), (sym_wasm_pragma, 3150), (sym_warn_pragma, 7490),
     (sym_allow_pragma, 3140), (sym_test_pragma, 7490), (sym_once_pragma, 7490),
     (sym_must_call_pragma, 7490), (sym_export_pragma, 7490), (sym_pou_pragma, 7194),
     (sym_direct_variable, 7675), (sym_deref_expression, 2373), (sym_variable, 7599),
     (sym_var_access, 2373), (sym_in_out_decls, 3160), (sym_var_decls, 3160),
     (sym_retain_var_decls, 3160), (sym_temp_var_decls, 3160), (sym_external_var_decls, 3160),
     (sym_global_var_decls, 2947), (sym_loc_partly_var_decl, 3160), (sym__fb_variables, 2347),
     (sym_fb_input_decls, 3160), (sym_fb_output_decls, 3160), (sym_no_retain_var_decls, 3160),
     (sym_fb_body, 8563), (sym_method_decl, 624), (sym_prog_access_decls, 3043), (sym_SFC, 7970),
     (sym_SFC_network, 7612), (sym_initial_step, 7439), (sym_config_init, 3047),
     (sym_variable_access, 7530), (sym_func_call, 2961), (sym_stmt_list, 7970), (sym__stmt, 2024),
     (sym_assign, 3150), (sym_if_stmt, 3150), (sym_case_stmt, 3150), (sym_for_stmt, 3150),
     (sym_while_stmt, 3150), (sym_repeat_stmt, 3150), (sym_raise_stmt, 3150), (sym_try_stmt, 3150),
     (sym_ERR_clause_outside_try, 3150), (sym_begin_path_expression, 2943), (sym_invocation, 2934),
     (sym_any_invocation, 2935), (sym_this_invocation, 2641), (sym_super_invocation, 2641),
     (sym_super_body_invocation, 2935), (sym_path_expression, 2627), (sym_field_expression, 2373),
     (sym_index_expression, 2373), (sym_ladder_diagram, 7970), (sym_fb_diagram, 7970),
     (aux_sym_ERR_fb_variables_after_method_repeat1, 2347), (aux_sym_func_decl_repeat1, 7194),
     (aux_sym_fb_decl_repeat3, 624), (aux_sym_SFC_repeat1, 7612), (aux_sym_stmt_list_repeat1, 2024),
     (aux_sym_ladder_diagram_repeat1, 8009), (aux_sym_fb_diagram_repeat1, 8013),
     (sym_identifier, 298), (aux_sym_ERR_unexpected_this_in_path_token1, 304),
     (aux_sym_ERR_unexpected_super_in_path_token1, 306), (sym_line_comment, 3),
     (anon_sym_LBRACE, 308), (aux_sym_test_pragma_token1, 9), (aux_sym_once_pragma_token1, 11),
     (aux_sym_must_call_pragma_token1, 13), (aux_sym_export_pragma_token1, 15),
     (anon_sym_SEMI, 310), (anon_sym_PERCENT, 312), (aux_sym_input_decls_token1, 314),
     (aux_sym_output_decls_token1, 316), (aux_sym_in_out_decls_token1, 318),
     (aux_sym_var_decls_token1, 320), (aux_sym_temp_var_decls_token1, 322),
     (aux_sym_external_var_decls_token1, 324), (aux_sym_global_var_decls_token1, 326),
     (aux_sym_fb_decl_token4, 1294), (aux_sym_method_decl_token1, 330),
     (aux_sym_prog_access_decls_token1, 332), (aux_sym_initial_step_token1, 334),
     (aux_sym_config_init_token1, 336), (aux_sym__stmt_token1, 340), (aux_sym__stmt_token2, 340),
     (aux_sym__stmt_token3, 340), (aux_sym_if_stmt_token1, 342), (aux_sym_case_stmt_token1, 344),
     (aux_sym_for_stmt_token1, 346), (aux_sym_while_stmt_token1, 348),
     (aux_sym_repeat_stmt_token1, 350), (aux_sym_raise_stmt_token1, 352),
     (aux_sym_try_stmt_token1, 354), (aux_sym_try_stmt_token2, 356),
     (aux_sym_catch_clause_token1, 356), (aux_sym_finally_clause_token1, 356), (sym_ld_rung, 358),
     (sym_fbd_network, 360), (sym_c_style_comment, 3), (sym_pascal_style_comment, 3),
     (sym_pragma, 3)]"

lemma ts_parse_row_482_scan: "row_scan tokens_63_2 0 ts_parse_row_482 = Some (Suc (Suc (Suc (Suc 0))))"
  unfolding ts_parse_row_482_def by simp

text \<open>Lines 109788 to 109900.\<close>

definition ts_parse_row_483 :: parse_row where
  "ts_parse_row_483 =
    [(sym_ERR_assign_func_call, 7530), (sym_ERR_unexpected_this_in_path, 2372),
     (sym_ERR_unexpected_super_in_path, 2372), (sym_ERR_fb_variables_after_method, 1593),
     (sym_ERR_var_access_not_allowed, 3160), (sym_ERR_var_config_not_allowed, 3160),
     (sym_ERR_var_global_not_allowed, 3160), (sym_ERR_method_decl_in_body, 3150),
     (sym_extern_pragma, 7490), (sym_wasm_pragma, 3150), (sym_warn_pragma, 7490),
     (sym_allow_pragma, 3140), (sym_test_pragma, 7490), (sym_once_pragma, 7490),
     (sym_must_call_pragma, 7490), (sym_export_pragma, 7490), (sym_pou_pragma, 7194),
     (sym_direct_variable, 7675), (sym_deref_expression, 2373), (sym_variable, 7599),
     (sym_var_access, 2373), (sym_in_out_decls, 3160), (sym_var_decls, 3160),
     (sym_retain_var_decls, 3160), (sym_temp_var_decls, 3160), (sym_external_var_decls, 3160),
     (sym_global_var_decls, 2947), (sym_loc_partly_var_decl, 3160), (sym__fb_variables, 2347),
     (sym_fb_input_decls, 3160), (sym_fb_output_decls, 3160), (sym_no_retain_var_decls, 3160),
     (sym_fb_body, 8789), (sym_method_decl, 340), (sym_prog_access_decls, 3043), (sym_SFC, 7970),
     (sym_SFC_network, 7612), (sym_initial_step, 7439), (sym_config_init, 3047),
     (sym_variable_access, 7530), (sym_func_call, 2961), (sym_stmt_list, 7970), (sym__stmt, 2024),
     (sym_assign, 3150), (sym_if_stmt, 3150), (sym_case_stmt, 3150), (sym_for_stmt, 3150),
     (sym_while_stmt, 3150), (sym_repeat_stmt, 3150), (sym_raise_stmt, 3150), (sym_try_stmt, 3150),
     (sym_ERR_clause_outside_try, 3150), (sym_begin_path_expression, 2943), (sym_invocation, 2934),
     (sym_any_invocation, 2935), (sym_this_invocation, 2641), (sym_super_invocation, 2641),
     (sym_super_body_invocation, 2935), (sym_path_expression, 2627), (sym_field_expression, 2373),
     (sym_index_expression, 2373), (sym_ladder_diagram, 7970), (sym_fb_diagram, 7970),
     (aux_sym_ERR_fb_variables_after_method_repeat1, 2347), (aux_sym_func_decl_repeat1, 7194),
     (aux_sym_fb_decl_repeat3, 340), (aux_sym_SFC_repeat1, 7612), (aux_sym_stmt_list_repeat1, 2024),
     (aux_sym_ladder_diagram_repeat1, 8009), (aux_sym_fb_diagram_repeat1, 8013),
     (sym_identifier, 298), (aux_sym_ERR_unexpected_this_in_path_token1, 304),
     (aux_sym_ERR_unexpected_super_in_path_token1, 306), (sym_line_comment, 3),
     (anon_sym_LBRACE, 308), (aux_sym_test_pragma_token1, 9), (aux_sym_once_pragma_token1, 11),
     (aux_sym_must_call_pragma_token1, 13), (aux_sym_export_pragma_token1, 15),
     (anon_sym_SEMI, 310), (anon_sym_PERCENT, 312), (aux_sym_input_decls_token1, 314),
     (aux_sym_output_decls_token1, 316), (aux_sym_in_out_decls_token1, 318),
     (aux_sym_var_decls_token1, 320), (aux_sym_temp_var_decls_token1, 322),
     (aux_sym_external_var_decls_token1, 324), (aux_sym_global_var_decls_token1, 326),
     (aux_sym_fb_decl_token4, 1296), (aux_sym_method_decl_token1, 330),
     (aux_sym_prog_access_decls_token1, 332), (aux_sym_initial_step_token1, 334),
     (aux_sym_config_init_token1, 336), (aux_sym__stmt_token1, 340), (aux_sym__stmt_token2, 340),
     (aux_sym__stmt_token3, 340), (aux_sym_if_stmt_token1, 342), (aux_sym_case_stmt_token1, 344),
     (aux_sym_for_stmt_token1, 346), (aux_sym_while_stmt_token1, 348),
     (aux_sym_repeat_stmt_token1, 350), (aux_sym_raise_stmt_token1, 352),
     (aux_sym_try_stmt_token1, 354), (aux_sym_try_stmt_token2, 356),
     (aux_sym_catch_clause_token1, 356), (aux_sym_finally_clause_token1, 356), (sym_ld_rung, 358),
     (sym_fbd_network, 360), (sym_c_style_comment, 3), (sym_pascal_style_comment, 3),
     (sym_pragma, 3)]"

lemma ts_parse_row_483_scan: "row_scan tokens_63_2 0 ts_parse_row_483 = Some (Suc (Suc (Suc (Suc 0))))"
  unfolding ts_parse_row_483_def by simp

text \<open>Lines 109901 to 110013.\<close>

definition ts_parse_row_484 :: parse_row where
  "ts_parse_row_484 =
    [(sym_ERR_assign_func_call, 7530), (sym_ERR_unexpected_this_in_path, 2372),
     (sym_ERR_unexpected_super_in_path, 2372), (sym_ERR_fb_variables_after_method, 1384),
     (sym_ERR_var_access_not_allowed, 3160), (sym_ERR_var_config_not_allowed, 3160),
     (sym_ERR_var_global_not_allowed, 3160), (sym_ERR_method_decl_in_body, 3150),
     (sym_extern_pragma, 7490), (sym_wasm_pragma, 3150), (sym_warn_pragma, 7490),
     (sym_allow_pragma, 3140), (sym_test_pragma, 7490), (sym_once_pragma, 7490),
     (sym_must_call_pragma, 7490), (sym_export_pragma, 7490), (sym_pou_pragma, 7194),
     (sym_direct_variable, 7675), (sym_deref_expression, 2373), (sym_variable, 7599),
     (sym_var_access, 2373), (sym_in_out_decls, 3160), (sym_var_decls, 3160),
     (sym_retain_var_decls, 3160), (sym_temp_var_decls, 3160), (sym_external_var_decls, 3160),
     (sym_global_var_decls, 2947), (sym_loc_partly_var_decl, 3160), (sym__fb_variables, 2343),
     (sym_fb_input_decls, 3160), (sym_fb_output_decls, 3160), (sym_no_retain_var_decls, 3160),
     (sym_fb_body, 8598), (sym_method_decl, 2549), (sym_prog_access_decls, 3043), (sym_SFC, 7970),
     (sym_SFC_network, 7612), (sym_initial_step, 7439), (sym_config_init, 3047),
     (sym_variable_access, 7530), (sym_func_call, 2961), (sym_stmt_list, 7970), (sym__stmt, 2024),
     (sym_assign, 3150), (sym_if_stmt, 3150), (sym_case_stmt, 3150), (sym_for_stmt, 3150),
     (sym_while_stmt, 3150), (sym_repeat_stmt, 3150), (sym_raise_stmt, 3150), (sym_try_stmt, 3150),
     (sym_ERR_clause_outside_try, 3150), (sym_begin_path_expression, 2943), (sym_invocation, 2934),
     (sym_any_invocation, 2935), (sym_this_invocation, 2641), (sym_super_invocation, 2641),
     (sym_super_body_invocation, 2935), (sym_path_expression, 2627), (sym_field_expression, 2373),
     (sym_index_expression, 2373), (sym_ladder_diagram, 7970), (sym_fb_diagram, 7970),
     (aux_sym_ERR_fb_variables_after_method_repeat1, 2343), (aux_sym_func_decl_repeat1, 7194),
     (aux_sym_fb_decl_repeat3, 2549), (aux_sym_SFC_repeat1, 7612),
     (aux_sym_stmt_list_repeat1, 2024), (aux_sym_ladder_diagram_repeat1, 8009),
     (aux_sym_fb_diagram_repeat1, 8013), (sym_identifier, 298),
     (aux_sym_ERR_unexpected_this_in_path_token1, 304),
     (aux_sym_ERR_unexpected_super_in_path_token1, 306), (sym_line_comment, 3),
     (anon_sym_LBRACE, 308), (aux_sym_test_pragma_token1, 9), (aux_sym_once_pragma_token1, 11),
     (aux_sym_must_call_pragma_token1, 13), (aux_sym_export_pragma_token1, 15),
     (anon_sym_SEMI, 310), (anon_sym_PERCENT, 312), (aux_sym_input_decls_token1, 314),
     (aux_sym_output_decls_token1, 316), (aux_sym_in_out_decls_token1, 318),
     (aux_sym_var_decls_token1, 320), (aux_sym_temp_var_decls_token1, 322),
     (aux_sym_external_var_decls_token1, 324), (aux_sym_global_var_decls_token1, 326),
     (aux_sym_fb_decl_token4, 1298), (aux_sym_method_decl_token1, 330),
     (aux_sym_prog_access_decls_token1, 332), (aux_sym_initial_step_token1, 334),
     (aux_sym_config_init_token1, 336), (aux_sym__stmt_token1, 340), (aux_sym__stmt_token2, 340),
     (aux_sym__stmt_token3, 340), (aux_sym_if_stmt_token1, 342), (aux_sym_case_stmt_token1, 344),
     (aux_sym_for_stmt_token1, 346), (aux_sym_while_stmt_token1, 348),
     (aux_sym_repeat_stmt_token1, 350), (aux_sym_raise_stmt_token1, 352),
     (aux_sym_try_stmt_token1, 354), (aux_sym_try_stmt_token2, 356),
     (aux_sym_catch_clause_token1, 356), (aux_sym_finally_clause_token1, 356), (sym_ld_rung, 358),
     (sym_fbd_network, 360), (sym_c_style_comment, 3), (sym_pascal_style_comment, 3),
     (sym_pragma, 3)]"

lemma ts_parse_row_484_scan: "row_scan tokens_63_2 0 ts_parse_row_484 = Some (Suc (Suc (Suc (Suc 0))))"
  unfolding ts_parse_row_484_def by simp

text \<open>Lines 110014 to 110126.\<close>

definition ts_parse_row_485 :: parse_row where
  "ts_parse_row_485 =
    [(sym_ERR_assign_func_call, 7530), (sym_ERR_unexpected_this_in_path, 2372),
     (sym_ERR_unexpected_super_in_path, 2372), (sym_ERR_fb_variables_after_method, 1385),
     (sym_ERR_var_access_not_allowed, 3160), (sym_ERR_var_config_not_allowed, 3160),
     (sym_ERR_var_global_not_allowed, 3160), (sym_ERR_method_decl_in_body, 3150),
     (sym_extern_pragma, 7490), (sym_wasm_pragma, 3150), (sym_warn_pragma, 7490),
     (sym_allow_pragma, 3140), (sym_test_pragma, 7490), (sym_once_pragma, 7490),
     (sym_must_call_pragma, 7490), (sym_export_pragma, 7490), (sym_pou_pragma, 7194),
     (sym_direct_variable, 7675), (sym_deref_expression, 2373), (sym_variable, 7599),
     (sym_var_access, 2373), (sym_in_out_decls, 3160), (sym_var_decls, 3160),
     (sym_retain_var_decls, 3160), (sym_temp_var_decls, 3160), (sym_external_var_decls, 3160),
     (sym_global_var_decls, 2947), (sym_loc_partly_var_decl, 3160), (sym__fb_variables, 2347),
     (sym_fb_input_decls, 3160), (sym_fb_output_decls, 3160), (sym_no_retain_var_decls, 3160),
     (sym_fb_body, 8678), (sym_method_decl, 627), (sym_prog_access_decls, 3043), (sym_SFC, 7970),
     (sym_SFC_network, 7612), (sym_initial_step, 7439), (sym_config_init, 3047),
     (sym_variable_access, 7530), (sym_func_call, 2961), (sym_stmt_list, 7970), (sym__stmt, 2024),
     (sym_assign, 3150), (sym_if_stmt, 3150), (sym_case_stmt, 3150), (sym_for_stmt, 3150),
     (sym_while_stmt, 3150), (sym_repeat_stmt, 3150), (sym_raise_stmt, 3150), (sym_try_stmt, 3150),
     (sym_ERR_clause_outside_try, 3150), (sym_begin_path_expression, 2943), (sym_invocation, 2934),
     (sym_any_invocation, 2935), (sym_this_invocation, 2641), (sym_super_invocation, 2641),
     (sym_super_body_invocation, 2935), (sym_path_expression, 2627), (sym_field_expression, 2373),
     (sym_index_expression, 2373), (sym_ladder_diagram, 7970), (sym_fb_diagram, 7970),
     (aux_sym_ERR_fb_variables_after_method_repeat1, 2347), (aux_sym_func_decl_repeat1, 7194),
     (aux_sym_fb_decl_repeat3, 627), (aux_sym_SFC_repeat1, 7612), (aux_sym_stmt_list_repeat1, 2024),
     (aux_sym_ladder_diagram_repeat1, 8009), (aux_sym_fb_diagram_repeat1, 8013),
     (sym_identifier, 298), (aux_sym_ERR_unexpected_this_in_path_token1, 304),
     (aux_sym_ERR_unexpected_super_in_path_token1, 306), (sym_line_comment, 3),
     (anon_sym_LBRACE, 308), (aux_sym_test_pragma_token1, 9), (aux_sym_once_pragma_token1, 11),
     (aux_sym_must_call_pragma_token1, 13), (aux_sym_export_pragma_token1, 15),
     (anon_sym_SEMI, 310), (anon_sym_PERCENT, 312), (aux_sym_input_decls_token1, 314),
     (aux_sym_output_decls_token1, 316), (aux_sym_in_out_decls_token1, 318),
     (aux_sym_var_decls_token1, 320), (aux_sym_temp_var_decls_token1, 322),
     (aux_sym_external_var_decls_token1, 324), (aux_sym_global_var_decls_token1, 326),
     (aux_sym_fb_decl_token4, 1300), (aux_sym_method_decl_token1, 330),
     (aux_sym_prog_access_decls_token1, 332), (aux_sym_initial_step_token1, 334),
     (aux_sym_config_init_token1, 336), (aux_sym__stmt_token1, 340), (aux_sym__stmt_token2, 340),
     (aux_sym__stmt_token3, 340), (aux_sym_if_stmt_token1, 342), (aux_sym_case_stmt_token1, 344),
     (aux_sym_for_stmt_token1, 346), (aux_sym_while_stmt_token1, 348),
     (aux_sym_repeat_stmt_token1, 350), (aux_sym_raise_stmt_token1, 352),
     (aux_sym_try_stmt_token1, 354), (aux_sym_try_stmt_token2, 356),
     (aux_sym_catch_clause_token1, 356), (aux_sym_finally_clause_token1, 356), (sym_ld_rung, 358),
     (sym_fbd_network, 360), (sym_c_style_comment, 3), (sym_pascal_style_comment, 3),
     (sym_pragma, 3)]"

lemma ts_parse_row_485_scan: "row_scan tokens_63_2 0 ts_parse_row_485 = Some (Suc (Suc (Suc (Suc 0))))"
  unfolding ts_parse_row_485_def by simp

text \<open>Lines 110127 to 110239.\<close>

definition ts_parse_row_486 :: parse_row where
  "ts_parse_row_486 =
    [(sym_ERR_assign_func_call, 7530), (sym_ERR_unexpected_this_in_path, 2372),
     (sym_ERR_unexpected_super_in_path, 2372), (sym_ERR_fb_variables_after_method, 1602),
     (sym_ERR_var_access_not_allowed, 3160), (sym_ERR_var_config_not_allowed, 3160),
     (sym_ERR_var_global_not_allowed, 3160), (sym_ERR_method_decl_in_body, 3150),
     (sym_extern_pragma, 7490), (sym_wasm_pragma, 3150), (sym_warn_pragma, 7490),
     (sym_allow_pragma, 3140), (sym_test_pragma, 7490), (sym_once_pragma, 7490),
     (sym_must_call_pragma, 7490), (sym_export_pragma, 7490), (sym_pou_pragma, 7194),
     (sym_direct_variable, 7675), (sym_deref_expression, 2373), (sym_variable, 7599),
     (sym_var_access, 2373), (sym_in_out_decls, 3160), (sym_var_decls, 3160),
     (sym_retain_var_decls, 3160), (sym_temp_var_decls, 3160), (sym_external_var_decls, 3160),
     (sym_global_var_decls, 2947), (sym_loc_partly_var_decl, 3160), (sym__fb_variables, 2343),
     (sym_fb_input_decls, 3160), (sym_fb_output_decls, 3160), (sym_no_retain_var_decls, 3160),
     (sym_fb_body, 8797), (sym_method_decl, 2549), (sym_prog_access_decls, 3043), (sym_SFC, 7970),
     (sym_SFC_network, 7612), (sym_initial_step, 7439), (sym_config_init, 3047),
     (sym_variable_access, 7530), (sym_func_call, 2961), (sym_stmt_list, 7970), (sym__stmt, 2024),
     (sym_assign, 3150), (sym_if_stmt, 3150), (sym_case_stmt, 3150), (sym_for_stmt, 3150),
     (sym_while_stmt, 3150), (sym_repeat_stmt, 3150), (sym_raise_stmt, 3150), (sym_try_stmt, 3150),
     (sym_ERR_clause_outside_try, 3150), (sym_begin_path_expression, 2943), (sym_invocation, 2934),
     (sym_any_invocation, 2935), (sym_this_invocation, 2641), (sym_super_invocation, 2641),
     (sym_super_body_invocation, 2935), (sym_path_expression, 2627), (sym_field_expression, 2373),
     (sym_index_expression, 2373), (sym_ladder_diagram, 7970), (sym_fb_diagram, 7970),
     (aux_sym_ERR_fb_variables_after_method_repeat1, 2343), (aux_sym_func_decl_repeat1, 7194),
     (aux_sym_fb_decl_repeat3, 2549), (aux_sym_SFC_repeat1, 7612),
     (aux_sym_stmt_list_repeat1, 2024), (aux_sym_ladder_diagram_repeat1, 8009),
     (aux_sym_fb_diagram_repeat1, 8013), (sym_identifier, 298),
     (aux_sym_ERR_unexpected_this_in_path_token1, 304),
     (aux_sym_ERR_unexpected_super_in_path_token1, 306), (sym_line_comment, 3),
     (anon_sym_LBRACE, 308), (aux_sym_test_pragma_token1, 9), (aux_sym_once_pragma_token1, 11),
     (aux_sym_must_call_pragma_token1, 13), (aux_sym_export_pragma_token1, 15),
     (anon_sym_SEMI, 310), (anon_sym_PERCENT, 312), (aux_sym_input_decls_token1, 314),
     (aux_sym_output_decls_token1, 316), (aux_sym_in_out_decls_token1, 318),
     (aux_sym_var_decls_token1, 320), (aux_sym_temp_var_decls_token1, 322),
     (aux_sym_external_var_decls_token1, 324), (aux_sym_global_var_decls_token1, 326),
     (aux_sym_fb_decl_token4, 1302), (aux_sym_method_decl_token1, 330),
     (aux_sym_prog_access_decls_token1, 332), (aux_sym_initial_step_token1, 334),
     (aux_sym_config_init_token1, 336), (aux_sym__stmt_token1, 340), (aux_sym__stmt_token2, 340),
     (aux_sym__stmt_token3, 340), (aux_sym_if_stmt_token1, 342), (aux_sym_case_stmt_token1, 344),
     (aux_sym_for_stmt_token1, 346), (aux_sym_while_stmt_token1, 348),
     (aux_sym_repeat_stmt_token1, 350), (aux_sym_raise_stmt_token1, 352),
     (aux_sym_try_stmt_token1, 354), (aux_sym_try_stmt_token2, 356),
     (aux_sym_catch_clause_token1, 356), (aux_sym_finally_clause_token1, 356), (sym_ld_rung, 358),
     (sym_fbd_network, 360), (sym_c_style_comment, 3), (sym_pascal_style_comment, 3),
     (sym_pragma, 3)]"

lemma ts_parse_row_486_scan: "row_scan tokens_63_2 0 ts_parse_row_486 = Some (Suc (Suc (Suc (Suc 0))))"
  unfolding ts_parse_row_486_def by simp

text \<open>Lines 110240 to 110352.\<close>

definition ts_parse_row_487 :: parse_row where
  "ts_parse_row_487 =
    [(sym_ERR_assign_func_call, 7530), (sym_ERR_unexpected_this_in_path, 2372),
     (sym_ERR_unexpected_super_in_path, 2372), (sym_ERR_fb_variables_after_method, 1612),
     (sym_ERR_var_access_not_allowed, 3160), (sym_ERR_var_config_not_allowed, 3160),
     (sym_ERR_var_global_not_allowed, 3160), (sym_ERR_method_decl_in_body, 3150),
     (sym_extern_pragma, 7490), (sym_wasm_pragma, 3150), (sym_warn_pragma, 7490),
     (sym_allow_pragma, 3140), (sym_test_pragma, 7490), (sym_once_pragma, 7490),
     (sym_must_call_pragma, 7490), (sym_export_pragma, 7490), (sym_pou_pragma, 7194),
     (sym_direct_variable, 7675), (sym_deref_expression, 2373), (sym_variable, 7599),
     (sym_var_access, 2373), (sym_in_out_decls, 3160), (sym_var_decls, 3160),
     (sym_retain_var_decls, 3160), (sym_temp_var_decls, 3160), (sym_external_var_decls, 3160),
     (sym_global_var_decls, 2947), (sym_loc_partly_var_decl, 3160), (sym__fb_variables, 2347),
     (sym_fb_input_decls, 3160), (sym_fb_output_decls, 3160), (sym_no_retain_var_decls, 3160),
     (sym_fb_body, 8813), (sym_method_decl, 342), (sym_prog_access_decls, 3043), (sym_SFC, 7970),
     (sym_SFC_network, 7612), (sym_initial_step, 7439), (sym_config_init, 3047),
     (sym_variable_access, 7530), (sym_func_call, 2961), (sym_stmt_list, 7970), (sym__stmt, 2024),
     (sym_assign, 3150), (sym_if_stmt, 3150), (sym_case_stmt, 3150), (sym_for_stmt, 3150),
     (sym_while_stmt, 3150), (sym_repeat_stmt, 3150), (sym_raise_stmt, 3150), (sym_try_stmt, 3150),
     (sym_ERR_clause_outside_try, 3150), (sym_begin_path_expression, 2943), (sym_invocation, 2934),
     (sym_any_invocation, 2935), (sym_this_invocation, 2641), (sym_super_invocation, 2641),
     (sym_super_body_invocation, 2935), (sym_path_expression, 2627), (sym_field_expression, 2373),
     (sym_index_expression, 2373), (sym_ladder_diagram, 7970), (sym_fb_diagram, 7970),
     (aux_sym_ERR_fb_variables_after_method_repeat1, 2347), (aux_sym_func_decl_repeat1, 7194),
     (aux_sym_fb_decl_repeat3, 342), (aux_sym_SFC_repeat1, 7612), (aux_sym_stmt_list_repeat1, 2024),
     (aux_sym_ladder_diagram_repeat1, 8009), (aux_sym_fb_diagram_repeat1, 8013),
     (sym_identifier, 298), (aux_sym_ERR_unexpected_this_in_path_token1, 304),
     (aux_sym_ERR_unexpected_super_in_path_token1, 306), (sym_line_comment, 3),
     (anon_sym_LBRACE, 308), (aux_sym_test_pragma_token1, 9), (aux_sym_once_pragma_token1, 11),
     (aux_sym_must_call_pragma_token1, 13), (aux_sym_export_pragma_token1, 15),
     (anon_sym_SEMI, 310), (anon_sym_PERCENT, 312), (aux_sym_input_decls_token1, 314),
     (aux_sym_output_decls_token1, 316), (aux_sym_in_out_decls_token1, 318),
     (aux_sym_var_decls_token1, 320), (aux_sym_temp_var_decls_token1, 322),
     (aux_sym_external_var_decls_token1, 324), (aux_sym_global_var_decls_token1, 326),
     (aux_sym_fb_decl_token4, 1304), (aux_sym_method_decl_token1, 330),
     (aux_sym_prog_access_decls_token1, 332), (aux_sym_initial_step_token1, 334),
     (aux_sym_config_init_token1, 336), (aux_sym__stmt_token1, 340), (aux_sym__stmt_token2, 340),
     (aux_sym__stmt_token3, 340), (aux_sym_if_stmt_token1, 342), (aux_sym_case_stmt_token1, 344),
     (aux_sym_for_stmt_token1, 346), (aux_sym_while_stmt_token1, 348),
     (aux_sym_repeat_stmt_token1, 350), (aux_sym_raise_stmt_token1, 352),
     (aux_sym_try_stmt_token1, 354), (aux_sym_try_stmt_token2, 356),
     (aux_sym_catch_clause_token1, 356), (aux_sym_finally_clause_token1, 356), (sym_ld_rung, 358),
     (sym_fbd_network, 360), (sym_c_style_comment, 3), (sym_pascal_style_comment, 3),
     (sym_pragma, 3)]"

lemma ts_parse_row_487_scan: "row_scan tokens_63_2 0 ts_parse_row_487 = Some (Suc (Suc (Suc (Suc 0))))"
  unfolding ts_parse_row_487_def by simp

text \<open>Lines 110353 to 110465.\<close>

definition ts_parse_row_488 :: parse_row where
  "ts_parse_row_488 =
    [(sym_ERR_assign_func_call, 7530), (sym_ERR_unexpected_this_in_path, 2372),
     (sym_ERR_unexpected_super_in_path, 2372), (sym_ERR_fb_variables_after_method, 1390),
     (sym_ERR_var_access_not_allowed, 3160), (sym_ERR_var_config_not_allowed, 3160),
     (sym_ERR_var_global_not_allowed, 3160), (sym_ERR_method_decl_in_body, 3150),
     (sym_extern_pragma, 7490), (sym_wasm_pragma, 3150), (sym_warn_pragma, 7490),
     (sym_allow_pragma, 3140), (sym_test_pragma, 7490), (sym_once_pragma, 7490),
     (sym_must_call_pragma, 7490), (sym_export_pragma, 7490), (sym_pou_pragma, 7194),
     (sym_direct_variable, 7675), (sym_deref_expression, 2373), (sym_variable, 7599),
     (sym_var_access, 2373), (sym_in_out_decls, 3160), (sym_var_decls, 3160),
     (sym_retain_var_decls, 3160), (sym_temp_var_decls, 3160), (sym_external_var_decls, 3160),
     (sym_global_var_decls, 2947), (sym_loc_partly_var_decl, 3160), (sym__fb_variables, 2343),
     (sym_fb_input_decls, 3160), (sym_fb_output_decls, 3160), (sym_no_retain_var_decls, 3160),
     (sym_fb_body, 8732), (sym_method_decl, 2549), (sym_prog_access_decls, 3043), (sym_SFC, 7970),
     (sym_SFC_network, 7612), (sym_initial_step, 7439), (sym_config_init, 3047),
     (sym_variable_access, 7530), (sym_func_call, 2961), (sym_stmt_list, 7970), (sym__stmt, 2024),
     (sym_assign, 3150), (sym_if_stmt, 3150), (sym_case_stmt, 3150), (sym_for_stmt, 3150),
     (sym_while_stmt, 3150), (sym_repeat_stmt, 3150), (sym_raise_stmt, 3150), (sym_try_stmt, 3150),
     (sym_ERR_clause_outside_try, 3150), (sym_begin_path_expression, 2943), (sym_invocation, 2934),
     (sym_any_invocation, 2935), (sym_this_invocation, 2641), (sym_super_invocation, 2641),
     (sym_super_body_invocation, 2935), (sym_path_expression, 2627), (sym_field_expression, 2373),
     (sym_index_expression, 2373), (sym_ladder_diagram, 7970), (sym_fb_diagram, 7970),
     (aux_sym_ERR_fb_variables_after_method_repeat1, 2343), (aux_sym_func_decl_repeat1, 7194),
     (aux_sym_fb_decl_repeat3, 2549), (aux_sym_SFC_repeat1, 7612),
     (aux_sym_stmt_list_repeat1, 2024), (aux_sym_ladder_diagram_repeat1, 8009),
     (aux_sym_fb_diagram_repeat1, 8013), (sym_identifier, 298),
     (aux_sym_ERR_unexpected_this_in_path_token1, 304),
     (aux_sym_ERR_unexpected_super_in_path_token1, 306), (sym_line_comment, 3),
     (anon_sym_LBRACE, 308), (aux_sym_test_pragma_token1, 9), (aux_sym_once_pragma_token1, 11),
     (aux_sym_must_call_pragma_token1, 13), (aux_sym_export_pragma_token1, 15),
     (anon_sym_SEMI, 310), (anon_sym_PERCENT, 312), (aux_sym_input_decls_token1, 314),
     (aux_sym_output_decls_token1, 316), (aux_sym_in_out_decls_token1, 318),
     (aux_sym_var_decls_token1, 320), (aux_sym_temp_var_decls_token1, 322),
     (aux_sym_external_var_decls_token1, 324), (aux_sym_global_var_decls_token1, 326),
     (aux_sym_fb_decl_token4, 1306), (aux_sym_method_decl_token1, 330),
     (aux_sym_prog_access_decls_token1, 332), (aux_sym_initial_step_token1, 334),
     (aux_sym_config_init_token1, 336), (aux_sym__stmt_token1, 340), (aux_sym__stmt_token2, 340),
     (aux_sym__stmt_token3, 340), (aux_sym_if_stmt_token1, 342), (aux_sym_case_stmt_token1, 344),
     (aux_sym_for_stmt_token1, 346), (aux_sym_while_stmt_token1, 348),
     (aux_sym_repeat_stmt_token1, 350), (aux_sym_raise_stmt_token1, 352),
     (aux_sym_try_stmt_token1, 354), (aux_sym_try_stmt_token2, 356),
     (aux_sym_catch_clause_token1, 356), (aux_sym_finally_clause_token1, 356), (sym_ld_rung, 358),
     (sym_fbd_network, 360), (sym_c_style_comment, 3), (sym_pascal_style_comment, 3),
     (sym_pragma, 3)]"

lemma ts_parse_row_488_scan: "row_scan tokens_63_2 0 ts_parse_row_488 = Some (Suc (Suc (Suc (Suc 0))))"
  unfolding ts_parse_row_488_def by simp

text \<open>Lines 110466 to 110578.\<close>

definition ts_parse_row_489 :: parse_row where
  "ts_parse_row_489 =
    [(sym_ERR_assign_func_call, 7530), (sym_ERR_unexpected_this_in_path, 2372),
     (sym_ERR_unexpected_super_in_path, 2372), (sym_ERR_fb_variables_after_method, 1391),
     (sym_ERR_var_access_not_allowed, 3160), (sym_ERR_var_config_not_allowed, 3160),
     (sym_ERR_var_global_not_allowed, 3160), (sym_ERR_method_decl_in_body, 3150),
     (sym_extern_pragma, 7490), (sym_wasm_pragma, 3150), (sym_warn_pragma, 7490),
     (sym_allow_pragma, 3140), (sym_test_pragma, 7490), (sym_once_pragma, 7490),
     (sym_must_call_pragma, 7490), (sym_export_pragma, 7490), (sym_pou_pragma, 7194),
     (sym_direct_variable, 7675), (sym_deref_expression, 2373), (sym_variable, 7599),
     (sym_var_access, 2373), (sym_in_out_decls, 3160), (sym_var_decls, 3160),
     (sym_retain_var_decls, 3160), (sym_temp_var_decls, 3160), (sym_external_var_decls, 3160),
     (sym_global_var_decls, 2947), (sym_loc_partly_var_decl, 3160), (sym__fb_variables, 2343),
     (sym_fb_input_decls, 3160), (sym_fb_output_decls, 3160), (sym_no_retain_var_decls, 3160),
     (sym_fb_body, 8793), (sym_method_decl, 2549), (sym_prog_access_decls, 3043), (sym_SFC, 7970),
     (sym_SFC_network, 7612), (sym_initial_step, 7439), (sym_config_init, 3047),
     (sym_variable_access, 7530), (sym_func_call, 2961), (sym_stmt_list, 7970), (sym__stmt, 2024),
     (sym_assign, 3150), (sym_if_stmt, 3150), (sym_case_stmt, 3150), (sym_for_stmt, 3150),
     (sym_while_stmt, 3150), (sym_repeat_stmt, 3150), (sym_raise_stmt, 3150), (sym_try_stmt, 3150),
     (sym_ERR_clause_outside_try, 3150), (sym_begin_path_expression, 2943), (sym_invocation, 2934),
     (sym_any_invocation, 2935), (sym_this_invocation, 2641), (sym_super_invocation, 2641),
     (sym_super_body_invocation, 2935), (sym_path_expression, 2627), (sym_field_expression, 2373),
     (sym_index_expression, 2373), (sym_ladder_diagram, 7970), (sym_fb_diagram, 7970),
     (aux_sym_ERR_fb_variables_after_method_repeat1, 2343), (aux_sym_func_decl_repeat1, 7194),
     (aux_sym_fb_decl_repeat3, 2549), (aux_sym_SFC_repeat1, 7612),
     (aux_sym_stmt_list_repeat1, 2024), (aux_sym_ladder_diagram_repeat1, 8009),
     (aux_sym_fb_diagram_repeat1, 8013), (sym_identifier, 298),
     (aux_sym_ERR_unexpected_this_in_path_token1, 304),
     (aux_sym_ERR_unexpected_super_in_path_token1, 306), (sym_line_comment, 3),
     (anon_sym_LBRACE, 308), (aux_sym_test_pragma_token1, 9), (aux_sym_once_pragma_token1, 11),
     (aux_sym_must_call_pragma_token1, 13), (aux_sym_export_pragma_token1, 15),
     (anon_sym_SEMI, 310), (anon_sym_PERCENT, 312), (aux_sym_input_decls_token1, 314),
     (aux_sym_output_decls_token1, 316), (aux_sym_in_out_decls_token1, 318),
     (aux_sym_var_decls_token1, 320), (aux_sym_temp_var_decls_token1, 322),
     (aux_sym_external_var_decls_token1, 324), (aux_sym_global_var_decls_token1, 326),
     (aux_sym_fb_decl_token4, 1308), (aux_sym_method_decl_token1, 330),
     (aux_sym_prog_access_decls_token1, 332), (aux_sym_initial_step_token1, 334),
     (aux_sym_config_init_token1, 336), (aux_sym__stmt_token1, 340), (aux_sym__stmt_token2, 340),
     (aux_sym__stmt_token3, 340), (aux_sym_if_stmt_token1, 342), (aux_sym_case_stmt_token1, 344),
     (aux_sym_for_stmt_token1, 346), (aux_sym_while_stmt_token1, 348),
     (aux_sym_repeat_stmt_token1, 350), (aux_sym_raise_stmt_token1, 352),
     (aux_sym_try_stmt_token1, 354), (aux_sym_try_stmt_token2, 356),
     (aux_sym_catch_clause_token1, 356), (aux_sym_finally_clause_token1, 356), (sym_ld_rung, 358),
     (sym_fbd_network, 360), (sym_c_style_comment, 3), (sym_pascal_style_comment, 3),
     (sym_pragma, 3)]"

lemma ts_parse_row_489_scan: "row_scan tokens_63_2 0 ts_parse_row_489 = Some (Suc (Suc (Suc (Suc 0))))"
  unfolding ts_parse_row_489_def by simp

text \<open>Lines 110579 to 110691.\<close>

definition ts_parse_row_490 :: parse_row where
  "ts_parse_row_490 =
    [(sym_ERR_assign_func_call, 7530), (sym_ERR_unexpected_this_in_path, 2372),
     (sym_ERR_unexpected_super_in_path, 2372), (sym_ERR_fb_variables_after_method, 1392),
     (sym_ERR_var_access_not_allowed, 3160), (sym_ERR_var_config_not_allowed, 3160),
     (sym_ERR_var_global_not_allowed, 3160), (sym_ERR_method_decl_in_body, 3150),
     (sym_extern_pragma, 7490), (sym_wasm_pragma, 3150), (sym_warn_pragma, 7490),
     (sym_allow_pragma, 3140), (sym_test_pragma, 7490), (sym_once_pragma, 7490),
     (sym_must_call_pragma, 7490), (sym_export_pragma, 7490), (sym_pou_pragma, 7194),
     (sym_direct_variable, 7675), (sym_deref_expression, 2373), (sym_variable, 7599),
     (sym_var_access, 2373), (sym_in_out_decls, 3160), (sym_var_decls, 3160),
     (sym_retain_var_decls, 3160), (sym_temp_var_decls, 3160), (sym_external_var_decls, 3160),
     (sym_global_var_decls, 2947), (sym_loc_partly_var_decl, 3160), (sym__fb_variables, 2343),
     (sym_fb_input_decls, 3160), (sym_fb_output_decls, 3160), (sym_no_retain_var_decls, 3160),
     (sym_fb_body, 8867), (sym_method_decl, 2549), (sym_prog_access_decls, 3043), (sym_SFC, 7970),
     (sym_SFC_network, 7612), (sym_initial_step, 7439), (sym_config_init, 3047),
     (sym_variable_access, 7530), (sym_func_call, 2961), (sym_stmt_list, 7970), (sym__stmt, 2024),
     (sym_assign, 3150), (sym_if_stmt, 3150), (sym_case_stmt, 3150), (sym_for_stmt, 3150),
     (sym_while_stmt, 3150), (sym_repeat_stmt, 3150), (sym_raise_stmt, 3150), (sym_try_stmt, 3150),
     (sym_ERR_clause_outside_try, 3150), (sym_begin_path_expression, 2943), (sym_invocation, 2934),
     (sym_any_invocation, 2935), (sym_this_invocation, 2641), (sym_super_invocation, 2641),
     (sym_super_body_invocation, 2935), (sym_path_expression, 2627), (sym_field_expression, 2373),
     (sym_index_expression, 2373), (sym_ladder_diagram, 7970), (sym_fb_diagram, 7970),
     (aux_sym_ERR_fb_variables_after_method_repeat1, 2343), (aux_sym_func_decl_repeat1, 7194),
     (aux_sym_fb_decl_repeat3, 2549), (aux_sym_SFC_repeat1, 7612),
     (aux_sym_stmt_list_repeat1, 2024), (aux_sym_ladder_diagram_repeat1, 8009),
     (aux_sym_fb_diagram_repeat1, 8013), (sym_identifier, 298),
     (aux_sym_ERR_unexpected_this_in_path_token1, 304),
     (aux_sym_ERR_unexpected_super_in_path_token1, 306), (sym_line_comment, 3),
     (anon_sym_LBRACE, 308), (aux_sym_test_pragma_token1, 9), (aux_sym_once_pragma_token1, 11),
     (aux_sym_must_call_pragma_token1, 13), (aux_sym_export_pragma_token1, 15),
     (anon_sym_SEMI, 310), (anon_sym_PERCENT, 312), (aux_sym_input_decls_token1, 314),
     (aux_sym_output_decls_token1, 316), (aux_sym_in_out_decls_token1, 318),
     (aux_sym_var_decls_token1, 320), (aux_sym_temp_var_decls_token1, 322),
     (aux_sym_external_var_decls_token1, 324), (aux_sym_global_var_decls_token1, 326),
     (aux_sym_fb_decl_token4, 1310), (aux_sym_method_decl_token1, 330),
     (aux_sym_prog_access_decls_token1, 332), (aux_sym_initial_step_token1, 334),
     (aux_sym_config_init_token1, 336), (aux_sym__stmt_token1, 340), (aux_sym__stmt_token2, 340),
     (aux_sym__stmt_token3, 340), (aux_sym_if_stmt_token1, 342), (aux_sym_case_stmt_token1, 344),
     (aux_sym_for_stmt_token1, 346), (aux_sym_while_stmt_token1, 348),
     (aux_sym_repeat_stmt_token1, 350), (aux_sym_raise_stmt_token1, 352),
     (aux_sym_try_stmt_token1, 354), (aux_sym_try_stmt_token2, 356),
     (aux_sym_catch_clause_token1, 356), (aux_sym_finally_clause_token1, 356), (sym_ld_rung, 358),
     (sym_fbd_network, 360), (sym_c_style_comment, 3), (sym_pascal_style_comment, 3),
     (sym_pragma, 3)]"

lemma ts_parse_row_490_scan: "row_scan tokens_63_2 0 ts_parse_row_490 = Some (Suc (Suc (Suc (Suc 0))))"
  unfolding ts_parse_row_490_def by simp

text \<open>Lines 110692 to 110804.\<close>

definition ts_parse_row_491 :: parse_row where
  "ts_parse_row_491 =
    [(sym_ERR_assign_func_call, 7530), (sym_ERR_unexpected_this_in_path, 2372),
     (sym_ERR_unexpected_super_in_path, 2372), (sym_ERR_fb_variables_after_method, 1393),
     (sym_ERR_var_access_not_allowed, 3160), (sym_ERR_var_config_not_allowed, 3160),
     (sym_ERR_var_global_not_allowed, 3160), (sym_ERR_method_decl_in_body, 3150),
     (sym_extern_pragma, 7490), (sym_wasm_pragma, 3150), (sym_warn_pragma, 7490),
     (sym_allow_pragma, 3140), (sym_test_pragma, 7490), (sym_once_pragma, 7490),
     (sym_must_call_pragma, 7490), (sym_export_pragma, 7490), (sym_pou_pragma, 7194),
     (sym_direct_variable, 7675), (sym_deref_expression, 2373), (sym_variable, 7599),
     (sym_var_access, 2373), (sym_in_out_decls, 3160), (sym_var_decls, 3160),
     (sym_retain_var_decls, 3160), (sym_temp_var_decls, 3160), (sym_external_var_decls, 3160),
     (sym_global_var_decls, 2947), (sym_loc_partly_var_decl, 3160), (sym__fb_variables, 2347),
     (sym_fb_input_decls, 3160), (sym_fb_output_decls, 3160), (sym_no_retain_var_decls, 3160),
     (sym_fb_body, 8896), (sym_method_decl, 633), (sym_prog_access_decls, 3043), (sym_SFC, 7970),
     (sym_SFC_network, 7612), (sym_initial_step, 7439), (sym_config_init, 3047),
     (sym_variable_access, 7530), (sym_func_call, 2961), (sym_stmt_list, 7970), (sym__stmt, 2024),
     (sym_assign, 3150), (sym_if_stmt, 3150), (sym_case_stmt, 3150), (sym_for_stmt, 3150),
     (sym_while_stmt, 3150), (sym_repeat_stmt, 3150), (sym_raise_stmt, 3150), (sym_try_stmt, 3150),
     (sym_ERR_clause_outside_try, 3150), (sym_begin_path_expression, 2943), (sym_invocation, 2934),
     (sym_any_invocation, 2935), (sym_this_invocation, 2641), (sym_super_invocation, 2641),
     (sym_super_body_invocation, 2935), (sym_path_expression, 2627), (sym_field_expression, 2373),
     (sym_index_expression, 2373), (sym_ladder_diagram, 7970), (sym_fb_diagram, 7970),
     (aux_sym_ERR_fb_variables_after_method_repeat1, 2347), (aux_sym_func_decl_repeat1, 7194),
     (aux_sym_fb_decl_repeat3, 633), (aux_sym_SFC_repeat1, 7612), (aux_sym_stmt_list_repeat1, 2024),
     (aux_sym_ladder_diagram_repeat1, 8009), (aux_sym_fb_diagram_repeat1, 8013),
     (sym_identifier, 298), (aux_sym_ERR_unexpected_this_in_path_token1, 304),
     (aux_sym_ERR_unexpected_super_in_path_token1, 306), (sym_line_comment, 3),
     (anon_sym_LBRACE, 308), (aux_sym_test_pragma_token1, 9), (aux_sym_once_pragma_token1, 11),
     (aux_sym_must_call_pragma_token1, 13), (aux_sym_export_pragma_token1, 15),
     (anon_sym_SEMI, 310), (anon_sym_PERCENT, 312), (aux_sym_input_decls_token1, 314),
     (aux_sym_output_decls_token1, 316), (aux_sym_in_out_decls_token1, 318),
     (aux_sym_var_decls_token1, 320), (aux_sym_temp_var_decls_token1, 322),
     (aux_sym_external_var_decls_token1, 324), (aux_sym_global_var_decls_token1, 326),
     (aux_sym_fb_decl_token4, 1312), (aux_sym_method_decl_token1, 330),
     (aux_sym_prog_access_decls_token1, 332), (aux_sym_initial_step_token1, 334),
     (aux_sym_config_init_token1, 336), (aux_sym__stmt_token1, 340), (aux_sym__stmt_token2, 340),
     (aux_sym__stmt_token3, 340), (aux_sym_if_stmt_token1, 342), (aux_sym_case_stmt_token1, 344),
     (aux_sym_for_stmt_token1, 346), (aux_sym_while_stmt_token1, 348),
     (aux_sym_repeat_stmt_token1, 350), (aux_sym_raise_stmt_token1, 352),
     (aux_sym_try_stmt_token1, 354), (aux_sym_try_stmt_token2, 356),
     (aux_sym_catch_clause_token1, 356), (aux_sym_finally_clause_token1, 356), (sym_ld_rung, 358),
     (sym_fbd_network, 360), (sym_c_style_comment, 3), (sym_pascal_style_comment, 3),
     (sym_pragma, 3)]"

lemma ts_parse_row_491_scan: "row_scan tokens_63_2 0 ts_parse_row_491 = Some (Suc (Suc (Suc (Suc 0))))"
  unfolding ts_parse_row_491_def by simp

text \<open>Lines 110805 to 110917.\<close>

definition ts_parse_row_492 :: parse_row where
  "ts_parse_row_492 =
    [(sym_ERR_assign_func_call, 7530), (sym_ERR_unexpected_this_in_path, 2372),
     (sym_ERR_unexpected_super_in_path, 2372), (sym_ERR_fb_variables_after_method, 1395),
     (sym_ERR_var_access_not_allowed, 3160), (sym_ERR_var_config_not_allowed, 3160),
     (sym_ERR_var_global_not_allowed, 3160), (sym_ERR_method_decl_in_body, 3150),
     (sym_extern_pragma, 7490), (sym_wasm_pragma, 3150), (sym_warn_pragma, 7490),
     (sym_allow_pragma, 3140), (sym_test_pragma, 7490), (sym_once_pragma, 7490),
     (sym_must_call_pragma, 7490), (sym_export_pragma, 7490), (sym_pou_pragma, 7194),
     (sym_direct_variable, 7675), (sym_deref_expression, 2373), (sym_variable, 7599),
     (sym_var_access, 2373), (sym_in_out_decls, 3160), (sym_var_decls, 3160),
     (sym_retain_var_decls, 3160), (sym_temp_var_decls, 3160), (sym_external_var_decls, 3160),
     (sym_global_var_decls, 2947), (sym_loc_partly_var_decl, 3160), (sym__fb_variables, 2343),
     (sym_fb_input_decls, 3160), (sym_fb_output_decls, 3160), (sym_no_retain_var_decls, 3160),
     (sym_fb_body, 8926), (sym_method_decl, 2549), (sym_prog_access_decls, 3043), (sym_SFC, 7970),
     (sym_SFC_network, 7612), (sym_initial_step, 7439), (sym_config_init, 3047),
     (sym_variable_access, 7530), (sym_func_call, 2961), (sym_stmt_list, 7970), (sym__stmt, 2024),
     (sym_assign, 3150), (sym_if_stmt, 3150), (sym_case_stmt, 3150), (sym_for_stmt, 3150),
     (sym_while_stmt, 3150), (sym_repeat_stmt, 3150), (sym_raise_stmt, 3150), (sym_try_stmt, 3150),
     (sym_ERR_clause_outside_try, 3150), (sym_begin_path_expression, 2943), (sym_invocation, 2934),
     (sym_any_invocation, 2935), (sym_this_invocation, 2641), (sym_super_invocation, 2641),
     (sym_super_body_invocation, 2935), (sym_path_expression, 2627), (sym_field_expression, 2373),
     (sym_index_expression, 2373), (sym_ladder_diagram, 7970), (sym_fb_diagram, 7970),
     (aux_sym_ERR_fb_variables_after_method_repeat1, 2343), (aux_sym_func_decl_repeat1, 7194),
     (aux_sym_fb_decl_repeat3, 2549), (aux_sym_SFC_repeat1, 7612),
     (aux_sym_stmt_list_repeat1, 2024), (aux_sym_ladder_diagram_repeat1, 8009),
     (aux_sym_fb_diagram_repeat1, 8013), (sym_identifier, 298),
     (aux_sym_ERR_unexpected_this_in_path_token1, 304),
     (aux_sym_ERR_unexpected_super_in_path_token1, 306), (sym_line_comment, 3),
     (anon_sym_LBRACE, 308), (aux_sym_test_pragma_token1, 9), (aux_sym_once_pragma_token1, 11),
     (aux_sym_must_call_pragma_token1, 13), (aux_sym_export_pragma_token1, 15),
     (anon_sym_SEMI, 310), (anon_sym_PERCENT, 312), (aux_sym_input_decls_token1, 314),
     (aux_sym_output_decls_token1, 316), (aux_sym_in_out_decls_token1, 318),
     (aux_sym_var_decls_token1, 320), (aux_sym_temp_var_decls_token1, 322),
     (aux_sym_external_var_decls_token1, 324), (aux_sym_global_var_decls_token1, 326),
     (aux_sym_fb_decl_token4, 1314), (aux_sym_method_decl_token1, 330),
     (aux_sym_prog_access_decls_token1, 332), (aux_sym_initial_step_token1, 334),
     (aux_sym_config_init_token1, 336), (aux_sym__stmt_token1, 340), (aux_sym__stmt_token2, 340),
     (aux_sym__stmt_token3, 340), (aux_sym_if_stmt_token1, 342), (aux_sym_case_stmt_token1, 344),
     (aux_sym_for_stmt_token1, 346), (aux_sym_while_stmt_token1, 348),
     (aux_sym_repeat_stmt_token1, 350), (aux_sym_raise_stmt_token1, 352),
     (aux_sym_try_stmt_token1, 354), (aux_sym_try_stmt_token2, 356),
     (aux_sym_catch_clause_token1, 356), (aux_sym_finally_clause_token1, 356), (sym_ld_rung, 358),
     (sym_fbd_network, 360), (sym_c_style_comment, 3), (sym_pascal_style_comment, 3),
     (sym_pragma, 3)]"

lemma ts_parse_row_492_scan: "row_scan tokens_63_2 0 ts_parse_row_492 = Some (Suc (Suc (Suc (Suc 0))))"
  unfolding ts_parse_row_492_def by simp

text \<open>Lines 110918 to 111030.\<close>

definition ts_parse_row_493 :: parse_row where
  "ts_parse_row_493 =
    [(sym_ERR_assign_func_call, 7530), (sym_ERR_unexpected_this_in_path, 2372),
     (sym_ERR_unexpected_super_in_path, 2372), (sym_ERR_fb_variables_after_method, 1396),
     (sym_ERR_var_access_not_allowed, 3160), (sym_ERR_var_config_not_allowed, 3160),
     (sym_ERR_var_global_not_allowed, 3160), (sym_ERR_method_decl_in_body, 3150),
     (sym_extern_pragma, 7490), (sym_wasm_pragma, 3150), (sym_warn_pragma, 7490),
     (sym_allow_pragma, 3140), (sym_test_pragma, 7490), (sym_once_pragma, 7490),
     (sym_must_call_pragma, 7490), (sym_export_pragma, 7490), (sym_pou_pragma, 7194),
     (sym_direct_variable, 7675), (sym_deref_expression, 2373), (sym_variable, 7599),
     (sym_var_access, 2373), (sym_in_out_decls, 3160), (sym_var_decls, 3160),
     (sym_retain_var_decls, 3160), (sym_temp_var_decls, 3160), (sym_external_var_decls, 3160),
     (sym_global_var_decls, 2947), (sym_loc_partly_var_decl, 3160), (sym__fb_variables, 2343),
     (sym_fb_input_decls, 3160), (sym_fb_output_decls, 3160), (sym_no_retain_var_decls, 3160),
     (sym_fb_body, 9011), (sym_method_decl, 2549), (sym_prog_access_decls, 3043), (sym_SFC, 7970),
     (sym_SFC_network, 7612), (sym_initial_step, 7439), (sym_config_init, 3047),
     (sym_variable_access, 7530), (sym_func_call, 2961), (sym_stmt_list, 7970), (sym__stmt, 2024),
     (sym_assign, 3150), (sym_if_stmt, 3150), (sym_case_stmt, 3150), (sym_for_stmt, 3150),
     (sym_while_stmt, 3150), (sym_repeat_stmt, 3150), (sym_raise_stmt, 3150), (sym_try_stmt, 3150),
     (sym_ERR_clause_outside_try, 3150), (sym_begin_path_expression, 2943), (sym_invocation, 2934),
     (sym_any_invocation, 2935), (sym_this_invocation, 2641), (sym_super_invocation, 2641),
     (sym_super_body_invocation, 2935), (sym_path_expression, 2627), (sym_field_expression, 2373),
     (sym_index_expression, 2373), (sym_ladder_diagram, 7970), (sym_fb_diagram, 7970),
     (aux_sym_ERR_fb_variables_after_method_repeat1, 2343), (aux_sym_func_decl_repeat1, 7194),
     (aux_sym_fb_decl_repeat3, 2549), (aux_sym_SFC_repeat1, 7612),
     (aux_sym_stmt_list_repeat1, 2024), (aux_sym_ladder_diagram_repeat1, 8009),
     (aux_sym_fb_diagram_repeat1, 8013), (sym_identifier, 298),
     (aux_sym_ERR_unexpected_this_in_path_token1, 304),
     (aux_sym_ERR_unexpected_super_in_path_token1, 306), (sym_line_comment, 3),
     (anon_sym_LBRACE, 308), (aux_sym_test_pragma_token1, 9), (aux_sym_once_pragma_token1, 11),
     (aux_sym_must_call_pragma_token1, 13), (aux_sym_export_pragma_token1, 15),
     (anon_sym_SEMI, 310), (anon_sym_PERCENT, 312), (aux_sym_input_decls_token1, 314),
     (aux_sym_output_decls_token1, 316), (aux_sym_in_out_decls_token1, 318),
     (aux_sym_var_decls_token1, 320), (aux_sym_temp_var_decls_token1, 322),
     (aux_sym_external_var_decls_token1, 324), (aux_sym_global_var_decls_token1, 326),
     (aux_sym_fb_decl_token4, 1316), (aux_sym_method_decl_token1, 330),
     (aux_sym_prog_access_decls_token1, 332), (aux_sym_initial_step_token1, 334),
     (aux_sym_config_init_token1, 336), (aux_sym__stmt_token1, 340), (aux_sym__stmt_token2, 340),
     (aux_sym__stmt_token3, 340), (aux_sym_if_stmt_token1, 342), (aux_sym_case_stmt_token1, 344),
     (aux_sym_for_stmt_token1, 346), (aux_sym_while_stmt_token1, 348),
     (aux_sym_repeat_stmt_token1, 350), (aux_sym_raise_stmt_token1, 352),
     (aux_sym_try_stmt_token1, 354), (aux_sym_try_stmt_token2, 356),
     (aux_sym_catch_clause_token1, 356), (aux_sym_finally_clause_token1, 356), (sym_ld_rung, 358),
     (sym_fbd_network, 360), (sym_c_style_comment, 3), (sym_pascal_style_comment, 3),
     (sym_pragma, 3)]"

lemma ts_parse_row_493_scan: "row_scan tokens_63_2 0 ts_parse_row_493 = Some (Suc (Suc (Suc (Suc 0))))"
  unfolding ts_parse_row_493_def by simp

text \<open>Lines 111031 to 111143.\<close>

definition ts_parse_row_494 :: parse_row where
  "ts_parse_row_494 =
    [(sym_ERR_assign_func_call, 7530), (sym_ERR_unexpected_this_in_path, 2372),
     (sym_ERR_unexpected_super_in_path, 2372), (sym_ERR_fb_variables_after_method, 1397),
     (sym_ERR_var_access_not_allowed, 3160), (sym_ERR_var_config_not_allowed, 3160),
     (sym_ERR_var_global_not_allowed, 3160), (sym_ERR_method_decl_in_body, 3150),
     (sym_extern_pragma, 7490), (sym_wasm_pragma, 3150), (sym_warn_pragma, 7490),
     (sym_allow_pragma, 3140), (sym_test_pragma, 7490), (sym_once_pragma, 7490),
     (sym_must_call_pragma, 7490), (sym_export_pragma, 7490), (sym_pou_pragma, 7194),
     (sym_direct_variable, 7675), (sym_deref_expression, 2373), (sym_variable, 7599),
     (sym_var_access, 2373), (sym_in_out_decls, 3160), (sym_var_decls, 3160),
     (sym_retain_var_decls, 3160), (sym_temp_var_decls, 3160), (sym_external_var_decls, 3160),
     (sym_global_var_decls, 2947), (sym_loc_partly_var_decl, 3160), (sym__fb_variables, 2343),
     (sym_fb_input_decls, 3160), (sym_fb_output_decls, 3160), (sym_no_retain_var_decls, 3160),
     (sym_fb_body, 9058), (sym_method_decl, 2549), (sym_prog_access_decls, 3043), (sym_SFC, 7970),
     (sym_SFC_network, 7612), (sym_initial_step, 7439), (sym_config_init, 3047),
     (sym_variable_access, 7530), (sym_func_call, 2961), (sym_stmt_list, 7970), (sym__stmt, 2024),
     (sym_assign, 3150), (sym_if_stmt, 3150), (sym_case_stmt, 3150), (sym_for_stmt, 3150),
     (sym_while_stmt, 3150), (sym_repeat_stmt, 3150), (sym_raise_stmt, 3150), (sym_try_stmt, 3150),
     (sym_ERR_clause_outside_try, 3150), (sym_begin_path_expression, 2943), (sym_invocation, 2934),
     (sym_any_invocation, 2935), (sym_this_invocation, 2641), (sym_super_invocation, 2641),
     (sym_super_body_invocation, 2935), (sym_path_expression, 2627), (sym_field_expression, 2373),
     (sym_index_expression, 2373), (sym_ladder_diagram, 7970), (sym_fb_diagram, 7970),
     (aux_sym_ERR_fb_variables_after_method_repeat1, 2343), (aux_sym_func_decl_repeat1, 7194),
     (aux_sym_fb_decl_repeat3, 2549), (aux_sym_SFC_repeat1, 7612),
     (aux_sym_stmt_list_repeat1, 2024), (aux_sym_ladder_diagram_repeat1, 8009),
     (aux_sym_fb_diagram_repeat1, 8013), (sym_identifier, 298),
     (aux_sym_ERR_unexpected_this_in_path_token1, 304),
     (aux_sym_ERR_unexpected_super_in_path_token1, 306), (sym_line_comment, 3),
     (anon_sym_LBRACE, 308), (aux_sym_test_pragma_token1, 9), (aux_sym_once_pragma_token1, 11),
     (aux_sym_must_call_pragma_token1, 13), (aux_sym_export_pragma_token1, 15),
     (anon_sym_SEMI, 310), (anon_sym_PERCENT, 312), (aux_sym_input_decls_token1, 314),
     (aux_sym_output_decls_token1, 316), (aux_sym_in_out_decls_token1, 318),
     (aux_sym_var_decls_token1, 320), (aux_sym_temp_var_decls_token1, 322),
     (aux_sym_external_var_decls_token1, 324), (aux_sym_global_var_decls_token1, 326),
     (aux_sym_fb_decl_token4, 1318), (aux_sym_method_decl_token1, 330),
     (aux_sym_prog_access_decls_token1, 332), (aux_sym_initial_step_token1, 334),
     (aux_sym_config_init_token1, 336), (aux_sym__stmt_token1, 340), (aux_sym__stmt_token2, 340),
     (aux_sym__stmt_token3, 340), (aux_sym_if_stmt_token1, 342), (aux_sym_case_stmt_token1, 344),
     (aux_sym_for_stmt_token1, 346), (aux_sym_while_stmt_token1, 348),
     (aux_sym_repeat_stmt_token1, 350), (aux_sym_raise_stmt_token1, 352),
     (aux_sym_try_stmt_token1, 354), (aux_sym_try_stmt_token2, 356),
     (aux_sym_catch_clause_token1, 356), (aux_sym_finally_clause_token1, 356), (sym_ld_rung, 358),
     (sym_fbd_network, 360), (sym_c_style_comment, 3), (sym_pascal_style_comment, 3),
     (sym_pragma, 3)]"

lemma ts_parse_row_494_scan: "row_scan tokens_63_2 0 ts_parse_row_494 = Some (Suc (Suc (Suc (Suc 0))))"
  unfolding ts_parse_row_494_def by simp

text \<open>Lines 111144 to 111256.\<close>

definition ts_parse_row_495 :: parse_row where
  "ts_parse_row_495 =
    [(sym_ERR_assign_func_call, 7530), (sym_ERR_unexpected_this_in_path, 2372),
     (sym_ERR_unexpected_super_in_path, 2372), (sym_ERR_fb_variables_after_method, 1398),
     (sym_ERR_var_access_not_allowed, 3160), (sym_ERR_var_config_not_allowed, 3160),
     (sym_ERR_var_global_not_allowed, 3160), (sym_ERR_method_decl_in_body, 3150),
     (sym_extern_pragma, 7490), (sym_wasm_pragma, 3150), (sym_warn_pragma, 7490),
     (sym_allow_pragma, 3140), (sym_test_pragma, 7490), (sym_once_pragma, 7490),
     (sym_must_call_pragma, 7490), (sym_export_pragma, 7490), (sym_pou_pragma, 7194),
     (sym_direct_variable, 7675), (sym_deref_expression, 2373), (sym_variable, 7599),
     (sym_var_access, 2373), (sym_in_out_decls, 3160), (sym_var_decls, 3160),
     (sym_retain_var_decls, 3160), (sym_temp_var_decls, 3160), (sym_external_var_decls, 3160),
     (sym_global_var_decls, 2947), (sym_loc_partly_var_decl, 3160), (sym__fb_variables, 2347),
     (sym_fb_input_decls, 3160), (sym_fb_output_decls, 3160), (sym_no_retain_var_decls, 3160),
     (sym_fb_body, 9095), (sym_method_decl, 634), (sym_prog_access_decls, 3043), (sym_SFC, 7970),
     (sym_SFC_network, 7612), (sym_initial_step, 7439), (sym_config_init, 3047),
     (sym_variable_access, 7530), (sym_func_call, 2961), (sym_stmt_list, 7970), (sym__stmt, 2024),
     (sym_assign, 3150), (sym_if_stmt, 3150), (sym_case_stmt, 3150), (sym_for_stmt, 3150),
     (sym_while_stmt, 3150), (sym_repeat_stmt, 3150), (sym_raise_stmt, 3150), (sym_try_stmt, 3150),
     (sym_ERR_clause_outside_try, 3150), (sym_begin_path_expression, 2943), (sym_invocation, 2934),
     (sym_any_invocation, 2935), (sym_this_invocation, 2641), (sym_super_invocation, 2641),
     (sym_super_body_invocation, 2935), (sym_path_expression, 2627), (sym_field_expression, 2373),
     (sym_index_expression, 2373), (sym_ladder_diagram, 7970), (sym_fb_diagram, 7970),
     (aux_sym_ERR_fb_variables_after_method_repeat1, 2347), (aux_sym_func_decl_repeat1, 7194),
     (aux_sym_fb_decl_repeat3, 634), (aux_sym_SFC_repeat1, 7612), (aux_sym_stmt_list_repeat1, 2024),
     (aux_sym_ladder_diagram_repeat1, 8009), (aux_sym_fb_diagram_repeat1, 8013),
     (sym_identifier, 298), (aux_sym_ERR_unexpected_this_in_path_token1, 304),
     (aux_sym_ERR_unexpected_super_in_path_token1, 306), (sym_line_comment, 3),
     (anon_sym_LBRACE, 308), (aux_sym_test_pragma_token1, 9), (aux_sym_once_pragma_token1, 11),
     (aux_sym_must_call_pragma_token1, 13), (aux_sym_export_pragma_token1, 15),
     (anon_sym_SEMI, 310), (anon_sym_PERCENT, 312), (aux_sym_input_decls_token1, 314),
     (aux_sym_output_decls_token1, 316), (aux_sym_in_out_decls_token1, 318),
     (aux_sym_var_decls_token1, 320), (aux_sym_temp_var_decls_token1, 322),
     (aux_sym_external_var_decls_token1, 324), (aux_sym_global_var_decls_token1, 326),
     (aux_sym_fb_decl_token4, 1320), (aux_sym_method_decl_token1, 330),
     (aux_sym_prog_access_decls_token1, 332), (aux_sym_initial_step_token1, 334),
     (aux_sym_config_init_token1, 336), (aux_sym__stmt_token1, 340), (aux_sym__stmt_token2, 340),
     (aux_sym__stmt_token3, 340), (aux_sym_if_stmt_token1, 342), (aux_sym_case_stmt_token1, 344),
     (aux_sym_for_stmt_token1, 346), (aux_sym_while_stmt_token1, 348),
     (aux_sym_repeat_stmt_token1, 350), (aux_sym_raise_stmt_token1, 352),
     (aux_sym_try_stmt_token1, 354), (aux_sym_try_stmt_token2, 356),
     (aux_sym_catch_clause_token1, 356), (aux_sym_finally_clause_token1, 356), (sym_ld_rung, 358),
     (sym_fbd_network, 360), (sym_c_style_comment, 3), (sym_pascal_style_comment, 3),
     (sym_pragma, 3)]"

lemma ts_parse_row_495_scan: "row_scan tokens_63_2 0 ts_parse_row_495 = Some (Suc (Suc (Suc (Suc 0))))"
  unfolding ts_parse_row_495_def by simp

text \<open>Lines 111257 to 111369.\<close>

definition ts_parse_row_496 :: parse_row where
  "ts_parse_row_496 =
    [(sym_ERR_assign_func_call, 7530), (sym_ERR_unexpected_this_in_path, 2372),
     (sym_ERR_unexpected_super_in_path, 2372), (sym_ERR_fb_variables_after_method, 1399),
     (sym_ERR_var_access_not_allowed, 3160), (sym_ERR_var_config_not_allowed, 3160),
     (sym_ERR_var_global_not_allowed, 3160), (sym_ERR_method_decl_in_body, 3150),
     (sym_extern_pragma, 7490), (sym_wasm_pragma, 3150), (sym_warn_pragma, 7490),
     (sym_allow_pragma, 3140), (sym_test_pragma, 7490), (sym_once_pragma, 7490),
     (sym_must_call_pragma, 7490), (sym_export_pragma, 7490), (sym_pou_pragma, 7194),
     (sym_direct_variable, 7675), (sym_deref_expression, 2373), (sym_variable, 7599),
     (sym_var_access, 2373), (sym_in_out_decls, 3160), (sym_var_decls, 3160),
     (sym_retain_var_decls, 3160), (sym_temp_var_decls, 3160), (sym_external_var_decls, 3160),
     (sym_global_var_decls, 2947), (sym_loc_partly_var_decl, 3160), (sym__fb_variables, 2343),
     (sym_fb_input_decls, 3160), (sym_fb_output_decls, 3160), (sym_no_retain_var_decls, 3160),
     (sym_fb_body, 9117), (sym_method_decl, 2549), (sym_prog_access_decls, 3043), (sym_SFC, 7970),
     (sym_SFC_network, 7612), (sym_initial_step, 7439), (sym_config_init, 3047),
     (sym_variable_access, 7530), (sym_func_call, 2961), (sym_stmt_list, 7970), (sym__stmt, 2024),
     (sym_assign, 3150), (sym_if_stmt, 3150), (sym_case_stmt, 3150), (sym_for_stmt, 3150),
     (sym_while_stmt, 3150), (sym_repeat_stmt, 3150), (sym_raise_stmt, 3150), (sym_try_stmt, 3150),
     (sym_ERR_clause_outside_try, 3150), (sym_begin_path_expression, 2943), (sym_invocation, 2934),
     (sym_any_invocation, 2935), (sym_this_invocation, 2641), (sym_super_invocation, 2641),
     (sym_super_body_invocation, 2935), (sym_path_expression, 2627), (sym_field_expression, 2373),
     (sym_index_expression, 2373), (sym_ladder_diagram, 7970), (sym_fb_diagram, 7970),
     (aux_sym_ERR_fb_variables_after_method_repeat1, 2343), (aux_sym_func_decl_repeat1, 7194),
     (aux_sym_fb_decl_repeat3, 2549), (aux_sym_SFC_repeat1, 7612),
     (aux_sym_stmt_list_repeat1, 2024), (aux_sym_ladder_diagram_repeat1, 8009),
     (aux_sym_fb_diagram_repeat1, 8013), (sym_identifier, 298),
     (aux_sym_ERR_unexpected_this_in_path_token1, 304),
     (aux_sym_ERR_unexpected_super_in_path_token1, 306), (sym_line_comment, 3),
     (anon_sym_LBRACE, 308), (aux_sym_test_pragma_token1, 9), (aux_sym_once_pragma_token1, 11),
     (aux_sym_must_call_pragma_token1, 13), (aux_sym_export_pragma_token1, 15),
     (anon_sym_SEMI, 310), (anon_sym_PERCENT, 312), (aux_sym_input_decls_token1, 314),
     (aux_sym_output_decls_token1, 316), (aux_sym_in_out_decls_token1, 318),
     (aux_sym_var_decls_token1, 320), (aux_sym_temp_var_decls_token1, 322),
     (aux_sym_external_var_decls_token1, 324), (aux_sym_global_var_decls_token1, 326),
     (aux_sym_fb_decl_token4, 1322), (aux_sym_method_decl_token1, 330),
     (aux_sym_prog_access_decls_token1, 332), (aux_sym_initial_step_token1, 334),
     (aux_sym_config_init_token1, 336), (aux_sym__stmt_token1, 340), (aux_sym__stmt_token2, 340),
     (aux_sym__stmt_token3, 340), (aux_sym_if_stmt_token1, 342), (aux_sym_case_stmt_token1, 344),
     (aux_sym_for_stmt_token1, 346), (aux_sym_while_stmt_token1, 348),
     (aux_sym_repeat_stmt_token1, 350), (aux_sym_raise_stmt_token1, 352),
     (aux_sym_try_stmt_token1, 354), (aux_sym_try_stmt_token2, 356),
     (aux_sym_catch_clause_token1, 356), (aux_sym_finally_clause_token1, 356), (sym_ld_rung, 358),
     (sym_fbd_network, 360), (sym_c_style_comment, 3), (sym_pascal_style_comment, 3),
     (sym_pragma, 3)]"

lemma ts_parse_row_496_scan: "row_scan tokens_63_2 0 ts_parse_row_496 = Some (Suc (Suc (Suc (Suc 0))))"
  unfolding ts_parse_row_496_def by simp

text \<open>Lines 111370 to 111482.\<close>

definition ts_parse_row_497 :: parse_row where
  "ts_parse_row_497 =
    [(sym_ERR_assign_func_call, 7530), (sym_ERR_unexpected_this_in_path, 2372),
     (sym_ERR_unexpected_super_in_path, 2372), (sym_ERR_fb_variables_after_method, 1400),
     (sym_ERR_var_access_not_allowed, 3160), (sym_ERR_var_config_not_allowed, 3160),
     (sym_ERR_var_global_not_allowed, 3160), (sym_ERR_method_decl_in_body, 3150),
     (sym_extern_pragma, 7490), (sym_wasm_pragma, 3150), (sym_warn_pragma, 7490),
     (sym_allow_pragma, 3140), (sym_test_pragma, 7490), (sym_once_pragma, 7490),
     (sym_must_call_pragma, 7490), (sym_export_pragma, 7490), (sym_pou_pragma, 7194),
     (sym_direct_variable, 7675), (sym_deref_expression, 2373), (sym_variable, 7599),
     (sym_var_access, 2373), (sym_in_out_decls, 3160), (sym_var_decls, 3160),
     (sym_retain_var_decls, 3160), (sym_temp_var_decls, 3160), (sym_external_var_decls, 3160),
     (sym_global_var_decls, 2947), (sym_loc_partly_var_decl, 3160), (sym__fb_variables, 2347),
     (sym_fb_input_decls, 3160), (sym_fb_output_decls, 3160), (sym_no_retain_var_decls, 3160),
     (sym_fb_body, 9174), (sym_method_decl, 635), (sym_prog_access_decls, 3043), (sym_SFC, 7970),
     (sym_SFC_network, 7612), (sym_initial_step, 7439), (sym_config_init, 3047),
     (sym_variable_access, 7530), (sym_func_call, 2961), (sym_stmt_list, 7970), (sym__stmt, 2024),
     (sym_assign, 3150), (sym_if_stmt, 3150), (sym_case_stmt, 3150), (sym_for_stmt, 3150),
     (sym_while_stmt, 3150), (sym_repeat_stmt, 3150), (sym_raise_stmt, 3150), (sym_try_stmt, 3150),
     (sym_ERR_clause_outside_try, 3150), (sym_begin_path_expression, 2943), (sym_invocation, 2934),
     (sym_any_invocation, 2935), (sym_this_invocation, 2641), (sym_super_invocation, 2641),
     (sym_super_body_invocation, 2935), (sym_path_expression, 2627), (sym_field_expression, 2373),
     (sym_index_expression, 2373), (sym_ladder_diagram, 7970), (sym_fb_diagram, 7970),
     (aux_sym_ERR_fb_variables_after_method_repeat1, 2347), (aux_sym_func_decl_repeat1, 7194),
     (aux_sym_fb_decl_repeat3, 635), (aux_sym_SFC_repeat1, 7612), (aux_sym_stmt_list_repeat1, 2024),
     (aux_sym_ladder_diagram_repeat1, 8009), (aux_sym_fb_diagram_repeat1, 8013),
     (sym_identifier, 298), (aux_sym_ERR_unexpected_this_in_path_token1, 304),
     (aux_sym_ERR_unexpected_super_in_path_token1, 306), (sym_line_comment, 3),
     (anon_sym_LBRACE, 308), (aux_sym_test_pragma_token1, 9), (aux_sym_once_pragma_token1, 11),
     (aux_sym_must_call_pragma_token1, 13), (aux_sym_export_pragma_token1, 15),
     (anon_sym_SEMI, 310), (anon_sym_PERCENT, 312), (aux_sym_input_decls_token1, 314),
     (aux_sym_output_decls_token1, 316), (aux_sym_in_out_decls_token1, 318),
     (aux_sym_var_decls_token1, 320), (aux_sym_temp_var_decls_token1, 322),
     (aux_sym_external_var_decls_token1, 324), (aux_sym_global_var_decls_token1, 326),
     (aux_sym_fb_decl_token4, 1324), (aux_sym_method_decl_token1, 330),
     (aux_sym_prog_access_decls_token1, 332), (aux_sym_initial_step_token1, 334),
     (aux_sym_config_init_token1, 336), (aux_sym__stmt_token1, 340), (aux_sym__stmt_token2, 340),
     (aux_sym__stmt_token3, 340), (aux_sym_if_stmt_token1, 342), (aux_sym_case_stmt_token1, 344),
     (aux_sym_for_stmt_token1, 346), (aux_sym_while_stmt_token1, 348),
     (aux_sym_repeat_stmt_token1, 350), (aux_sym_raise_stmt_token1, 352),
     (aux_sym_try_stmt_token1, 354), (aux_sym_try_stmt_token2, 356),
     (aux_sym_catch_clause_token1, 356), (aux_sym_finally_clause_token1, 356), (sym_ld_rung, 358),
     (sym_fbd_network, 360), (sym_c_style_comment, 3), (sym_pascal_style_comment, 3),
     (sym_pragma, 3)]"

lemma ts_parse_row_497_scan: "row_scan tokens_63_2 0 ts_parse_row_497 = Some (Suc (Suc (Suc (Suc 0))))"
  unfolding ts_parse_row_497_def by simp

text \<open>Lines 111483 to 111595.\<close>

definition ts_parse_row_498 :: parse_row where
  "ts_parse_row_498 =
    [(sym_ERR_assign_func_call, 7530), (sym_ERR_unexpected_this_in_path, 2372),
     (sym_ERR_unexpected_super_in_path, 2372), (sym_ERR_fb_variables_after_method, 1857),
     (sym_ERR_var_access_not_allowed, 3160), (sym_ERR_var_config_not_allowed, 3160),
     (sym_ERR_var_global_not_allowed, 3160), (sym_ERR_method_decl_in_body, 3150),
     (sym_extern_pragma, 7490), (sym_wasm_pragma, 3150), (sym_warn_pragma, 7490),
     (sym_allow_pragma, 3140), (sym_test_pragma, 7490), (sym_once_pragma, 7490),
     (sym_must_call_pragma, 7490), (sym_export_pragma, 7490), (sym_pou_pragma, 7194),
     (sym_direct_variable, 7675), (sym_deref_expression, 2373), (sym_variable, 7599),
     (sym_var_access, 2373), (sym_in_out_decls, 3160), (sym_var_decls, 3160),
     (sym_retain_var_decls, 3160), (sym_temp_var_decls, 3160), (sym_external_var_decls, 3160),
     (sym_global_var_decls, 2947), (sym_loc_partly_var_decl, 3160), (sym__fb_variables, 2347),
     (sym_fb_input_decls, 3160), (sym_fb_output_decls, 3160), (sym_no_retain_var_decls, 3160),
     (sym_fb_body, 8274), (sym_method_decl, 330), (sym_prog_access_decls, 3043), (sym_SFC, 7970),
     (sym_SFC_network, 7612), (sym_initial_step, 7439), (sym_config_init, 3047),
     (sym_variable_access, 7530), (sym_func_call, 2961), (sym_stmt_list, 7970), (sym__stmt, 2024),
     (sym_assign, 3150), (sym_if_stmt, 3150), (sym_case_stmt, 3150), (sym_for_stmt, 3150),
     (sym_while_stmt, 3150), (sym_repeat_stmt, 3150), (sym_raise_stmt, 3150), (sym_try_stmt, 3150),
     (sym_ERR_clause_outside_try, 3150), (sym_begin_path_expression, 2943), (sym_invocation, 2934),
     (sym_any_invocation, 2935), (sym_this_invocation, 2641), (sym_super_invocation, 2641),
     (sym_super_body_invocation, 2935), (sym_path_expression, 2627), (sym_field_expression, 2373),
     (sym_index_expression, 2373), (sym_ladder_diagram, 7970), (sym_fb_diagram, 7970),
     (aux_sym_ERR_fb_variables_after_method_repeat1, 2347), (aux_sym_func_decl_repeat1, 7194),
     (aux_sym_fb_decl_repeat3, 330), (aux_sym_SFC_repeat1, 7612), (aux_sym_stmt_list_repeat1, 2024),
     (aux_sym_ladder_diagram_repeat1, 8009), (aux_sym_fb_diagram_repeat1, 8013),
     (sym_identifier, 298), (aux_sym_ERR_unexpected_this_in_path_token1, 304),
     (aux_sym_ERR_unexpected_super_in_path_token1, 306), (sym_line_comment, 3),
     (anon_sym_LBRACE, 308), (aux_sym_test_pragma_token1, 9), (aux_sym_once_pragma_token1, 11),
     (aux_sym_must_call_pragma_token1, 13), (aux_sym_export_pragma_token1, 15),
     (anon_sym_SEMI, 310), (anon_sym_PERCENT, 312), (aux_sym_input_decls_token1, 314),
     (aux_sym_output_decls_token1, 316), (aux_sym_in_out_decls_token1, 318),
     (aux_sym_var_decls_token1, 320), (aux_sym_temp_var_decls_token1, 322),
     (aux_sym_external_var_decls_token1, 324), (aux_sym_global_var_decls_token1, 326),
     (aux_sym_fb_decl_token4, 1326), (aux_sym_method_decl_token1, 330),
     (aux_sym_prog_access_decls_token1, 332), (aux_sym_initial_step_token1, 334),
     (aux_sym_config_init_token1, 336), (aux_sym__stmt_token1, 340), (aux_sym__stmt_token2, 340),
     (aux_sym__stmt_token3, 340), (aux_sym_if_stmt_token1, 342), (aux_sym_case_stmt_token1, 344),
     (aux_sym_for_stmt_token1, 346), (aux_sym_while_stmt_token1, 348),
     (aux_sym_repeat_stmt_token1, 350), (aux_sym_raise_stmt_token1, 352),
     (aux_sym_try_stmt_token1, 354), (aux_sym_try_stmt_token2, 356),
     (aux_sym_catch_clause_token1, 356), (aux_sym_finally_clause_token1, 356), (sym_ld_rung, 358),
     (sym_fbd_network, 360), (sym_c_style_comment, 3), (sym_pascal_style_comment, 3),
     (sym_pragma, 3)]"

lemma ts_parse_row_498_scan: "row_scan tokens_63_2 0 ts_parse_row_498 = Some (Suc (Suc (Suc (Suc 0))))"
  unfolding ts_parse_row_498_def by simp

text \<open>Lines 111596 to 111708.\<close>

definition ts_parse_row_499 :: parse_row where
  "ts_parse_row_499 =
    [(sym_ERR_assign_func_call, 7530), (sym_ERR_unexpected_this_in_path, 2372),
     (sym_ERR_unexpected_super_in_path, 2372), (sym_ERR_fb_variables_after_method, 1239),
     (sym_ERR_var_access_not_allowed, 3160), (sym_ERR_var_config_not_allowed, 3160),
     (sym_ERR_var_global_not_allowed, 3160), (sym_ERR_method_decl_in_body, 3150),
     (sym_extern_pragma, 7490), (sym_wasm_pragma, 3150), (sym_warn_pragma, 7490),
     (sym_allow_pragma, 3140), (sym_test_pragma, 7490), (sym_once_pragma, 7490),
     (sym_must_call_pragma, 7490), (sym_export_pragma, 7490), (sym_pou_pragma, 7194),
     (sym_direct_variable, 7675), (sym_deref_expression, 2373), (sym_variable, 7599),
     (sym_var_access, 2373), (sym_in_out_decls, 3160), (sym_var_decls, 3160),
     (sym_retain_var_decls, 3160), (sym_temp_var_decls, 3160), (sym_external_var_decls, 3160),
     (sym_global_var_decls, 2947), (sym_loc_partly_var_decl, 3160), (sym__fb_variables, 2343),
     (sym_fb_input_decls, 3160), (sym_fb_output_decls, 3160), (sym_no_retain_var_decls, 3160),
     (sym_fb_body, 9469), (sym_method_decl, 2549), (sym_prog_access_decls, 3043), (sym_SFC, 7970),
     (sym_SFC_network, 7612), (sym_initial_step, 7439), (sym_config_init, 3047),
     (sym_variable_access, 7530), (sym_func_call, 2961), (sym_stmt_list, 7970), (sym__stmt, 2024),
     (sym_assign, 3150), (sym_if_stmt, 3150), (sym_case_stmt, 3150), (sym_for_stmt, 3150),
     (sym_while_stmt, 3150), (sym_repeat_stmt, 3150), (sym_raise_stmt, 3150), (sym_try_stmt, 3150),
     (sym_ERR_clause_outside_try, 3150), (sym_begin_path_expression, 2943), (sym_invocation, 2934),
     (sym_any_invocation, 2935), (sym_this_invocation, 2641), (sym_super_invocation, 2641),
     (sym_super_body_invocation, 2935), (sym_path_expression, 2627), (sym_field_expression, 2373),
     (sym_index_expression, 2373), (sym_ladder_diagram, 7970), (sym_fb_diagram, 7970),
     (aux_sym_ERR_fb_variables_after_method_repeat1, 2343), (aux_sym_func_decl_repeat1, 7194),
     (aux_sym_fb_decl_repeat3, 2549), (aux_sym_SFC_repeat1, 7612),
     (aux_sym_stmt_list_repeat1, 2024), (aux_sym_ladder_diagram_repeat1, 8009),
     (aux_sym_fb_diagram_repeat1, 8013), (sym_identifier, 298),
     (aux_sym_ERR_unexpected_this_in_path_token1, 304),
     (aux_sym_ERR_unexpected_super_in_path_token1, 306), (sym_line_comment, 3),
     (anon_sym_LBRACE, 308), (aux_sym_test_pragma_token1, 9), (aux_sym_once_pragma_token1, 11),
     (aux_sym_must_call_pragma_token1, 13), (aux_sym_export_pragma_token1, 15),
     (anon_sym_SEMI, 310), (anon_sym_PERCENT, 312), (aux_sym_input_decls_token1, 314),
     (aux_sym_output_decls_token1, 316), (aux_sym_in_out_decls_token1, 318),
     (aux_sym_var_decls_token1, 320), (aux_sym_temp_var_decls_token1, 322),
     (aux_sym_external_var_decls_token1, 324), (aux_sym_global_var_decls_token1, 326),
     (aux_sym_fb_decl_token4, 1328), (aux_sym_method_decl_token1, 330),
     (aux_sym_prog_access_decls_token1, 332), (aux_sym_initial_step_token1, 334),
     (aux_sym_config_init_token1, 336), (aux_sym__stmt_token1, 340), (aux_sym__stmt_token2, 340),
     (aux_sym__stmt_token3, 340), (aux_sym_if_stmt_token1, 342), (aux_sym_case_stmt_token1, 344),
     (aux_sym_for_stmt_token1, 346), (aux_sym_while_stmt_token1, 348),
     (aux_sym_repeat_stmt_token1, 350), (aux_sym_raise_stmt_token1, 352),
     (aux_sym_try_stmt_token1, 354), (aux_sym_try_stmt_token2, 356),
     (aux_sym_catch_clause_token1, 356), (aux_sym_finally_clause_token1, 356), (sym_ld_rung, 358),
     (sym_fbd_network, 360), (sym_c_style_comment, 3), (sym_pascal_style_comment, 3),
     (sym_pragma, 3)]"

lemma ts_parse_row_499_scan: "row_scan tokens_63_2 0 ts_parse_row_499 = Some (Suc (Suc (Suc (Suc 0))))"
  unfolding ts_parse_row_499_def by simp

text \<open>Lines 111709 to 111821.\<close>

definition ts_parse_row_500 :: parse_row where
  "ts_parse_row_500 =
    [(sym_ERR_assign_func_call, 7530), (sym_ERR_unexpected_this_in_path, 2372),
     (sym_ERR_unexpected_super_in_path, 2372), (sym_ERR_fb_variables_after_method, 1407),
     (sym_ERR_var_access_not_allowed, 3160), (sym_ERR_var_config_not_allowed, 3160),
     (sym_ERR_var_global_not_allowed, 3160), (sym_ERR_method_decl_in_body, 3150),
     (sym_extern_pragma, 7490), (sym_wasm_pragma, 3150), (sym_warn_pragma, 7490),
     (sym_allow_pragma, 3140), (sym_test_pragma, 7490), (sym_once_pragma, 7490),
     (sym_must_call_pragma, 7490), (sym_export_pragma, 7490), (sym_pou_pragma, 7194),
     (sym_direct_variable, 7675), (sym_deref_expression, 2373), (sym_variable, 7599),
     (sym_var_access, 2373), (sym_in_out_decls, 3160), (sym_var_decls, 3160),
     (sym_retain_var_decls, 3160), (sym_temp_var_decls, 3160), (sym_external_var_decls, 3160),
     (sym_global_var_decls, 2947), (sym_loc_partly_var_decl, 3160), (sym__fb_variables, 2343),
     (sym_fb_input_decls, 3160), (sym_fb_output_decls, 3160), (sym_no_retain_var_decls, 3160),
     (sym_fb_body, 9240), (sym_method_decl, 2549), (sym_prog_access_decls, 3043), (sym_SFC, 7970),
     (sym_SFC_network, 7612), (sym_initial_step, 7439), (sym_config_init, 3047),
     (sym_variable_access, 7530), (sym_func_call, 2961), (sym_stmt_list, 7970), (sym__stmt, 2024),
     (sym_assign, 3150), (sym_if_stmt, 3150), (sym_case_stmt, 3150), (sym_for_stmt, 3150),
     (sym_while_stmt, 3150), (sym_repeat_stmt, 3150), (sym_raise_stmt, 3150), (sym_try_stmt, 3150),
     (sym_ERR_clause_outside_try, 3150), (sym_begin_path_expression, 2943), (sym_invocation, 2934),
     (sym_any_invocation, 2935), (sym_this_invocation, 2641), (sym_super_invocation, 2641),
     (sym_super_body_invocation, 2935), (sym_path_expression, 2627), (sym_field_expression, 2373),
     (sym_index_expression, 2373), (sym_ladder_diagram, 7970), (sym_fb_diagram, 7970),
     (aux_sym_ERR_fb_variables_after_method_repeat1, 2343), (aux_sym_func_decl_repeat1, 7194),
     (aux_sym_fb_decl_repeat3, 2549), (aux_sym_SFC_repeat1, 7612),
     (aux_sym_stmt_list_repeat1, 2024), (aux_sym_ladder_diagram_repeat1, 8009),
     (aux_sym_fb_diagram_repeat1, 8013), (sym_identifier, 298),
     (aux_sym_ERR_unexpected_this_in_path_token1, 304),
     (aux_sym_ERR_unexpected_super_in_path_token1, 306), (sym_line_comment, 3),
     (anon_sym_LBRACE, 308), (aux_sym_test_pragma_token1, 9), (aux_sym_once_pragma_token1, 11),
     (aux_sym_must_call_pragma_token1, 13), (aux_sym_export_pragma_token1, 15),
     (anon_sym_SEMI, 310), (anon_sym_PERCENT, 312), (aux_sym_input_decls_token1, 314),
     (aux_sym_output_decls_token1, 316), (aux_sym_in_out_decls_token1, 318),
     (aux_sym_var_decls_token1, 320), (aux_sym_temp_var_decls_token1, 322),
     (aux_sym_external_var_decls_token1, 324), (aux_sym_global_var_decls_token1, 326),
     (aux_sym_fb_decl_token4, 1330), (aux_sym_method_decl_token1, 330),
     (aux_sym_prog_access_decls_token1, 332), (aux_sym_initial_step_token1, 334),
     (aux_sym_config_init_token1, 336), (aux_sym__stmt_token1, 340), (aux_sym__stmt_token2, 340),
     (aux_sym__stmt_token3, 340), (aux_sym_if_stmt_token1, 342), (aux_sym_case_stmt_token1, 344),
     (aux_sym_for_stmt_token1, 346), (aux_sym_while_stmt_token1, 348),
     (aux_sym_repeat_stmt_token1, 350), (aux_sym_raise_stmt_token1, 352),
     (aux_sym_try_stmt_token1, 354), (aux_sym_try_stmt_token2, 356),
     (aux_sym_catch_clause_token1, 356), (aux_sym_finally_clause_token1, 356), (sym_ld_rung, 358),
     (sym_fbd_network, 360), (sym_c_style_comment, 3), (sym_pascal_style_comment, 3),
     (sym_pragma, 3)]"

lemma ts_parse_row_500_scan: "row_scan tokens_63_2 0 ts_parse_row_500 = Some (Suc (Suc (Suc (Suc 0))))"
  unfolding ts_parse_row_500_def by simp

text \<open>Lines 111822 to 111934.\<close>

definition ts_parse_row_501 :: parse_row where
  "ts_parse_row_501 =
    [(sym_ERR_assign_func_call, 7530), (sym_ERR_unexpected_this_in_path, 2372),
     (sym_ERR_unexpected_super_in_path, 2372), (sym_ERR_fb_variables_after_method, 1408),
     (sym_ERR_var_access_not_allowed, 3160), (sym_ERR_var_config_not_allowed, 3160),
     (sym_ERR_var_global_not_allowed, 3160), (sym_ERR_method_decl_in_body, 3150),
     (sym_extern_pragma, 7490), (sym_wasm_pragma, 3150), (sym_warn_pragma, 7490),
     (sym_allow_pragma, 3140), (sym_test_pragma, 7490), (sym_once_pragma, 7490),
     (sym_must_call_pragma, 7490), (sym_export_pragma, 7490), (sym_pou_pragma, 7194),
     (sym_direct_variable, 7675), (sym_deref_expression, 2373), (sym_variable, 7599),
     (sym_var_access, 2373), (sym_in_out_decls, 3160), (sym_var_decls, 3160),
     (sym_retain_var_decls, 3160), (sym_temp_var_decls, 3160), (sym_external_var_decls, 3160),
     (sym_global_var_decls, 2947), (sym_loc_partly_var_decl, 3160), (sym__fb_variables, 2343),
     (sym_fb_input_decls, 3160), (sym_fb_output_decls, 3160), (sym_no_retain_var_decls, 3160),
     (sym_fb_body, 9291), (sym_method_decl, 2549), (sym_prog_access_decls, 3043), (sym_SFC, 7970),
     (sym_SFC_network, 7612), (sym_initial_step, 7439), (sym_config_init, 3047),
     (sym_variable_access, 7530), (sym_func_call, 2961), (sym_stmt_list, 7970), (sym__stmt, 2024),
     (sym_assign, 3150), (sym_if_stmt, 3150), (sym_case_stmt, 3150), (sym_for_stmt, 3150),
     (sym_while_stmt, 3150), (sym_repeat_stmt, 3150), (sym_raise_stmt, 3150), (sym_try_stmt, 3150),
     (sym_ERR_clause_outside_try, 3150), (sym_begin_path_expression, 2943), (sym_invocation, 2934),
     (sym_any_invocation, 2935), (sym_this_invocation, 2641), (sym_super_invocation, 2641),
     (sym_super_body_invocation, 2935), (sym_path_expression, 2627), (sym_field_expression, 2373),
     (sym_index_expression, 2373), (sym_ladder_diagram, 7970), (sym_fb_diagram, 7970),
     (aux_sym_ERR_fb_variables_after_method_repeat1, 2343), (aux_sym_func_decl_repeat1, 7194),
     (aux_sym_fb_decl_repeat3, 2549), (aux_sym_SFC_repeat1, 7612),
     (aux_sym_stmt_list_repeat1, 2024), (aux_sym_ladder_diagram_repeat1, 8009),
     (aux_sym_fb_diagram_repeat1, 8013), (sym_identifier, 298),
     (aux_sym_ERR_unexpected_this_in_path_token1, 304),
     (aux_sym_ERR_unexpected_super_in_path_token1, 306), (sym_line_comment, 3),
     (anon_sym_LBRACE, 308), (aux_sym_test_pragma_token1, 9), (aux_sym_once_pragma_token1, 11),
     (aux_sym_must_call_pragma_token1, 13), (aux_sym_export_pragma_token1, 15),
     (anon_sym_SEMI, 310), (anon_sym_PERCENT, 312), (aux_sym_input_decls_token1, 314),
     (aux_sym_output_decls_token1, 316), (aux_sym_in_out_decls_token1, 318),
     (aux_sym_var_decls_token1, 320), (aux_sym_temp_var_decls_token1, 322),
     (aux_sym_external_var_decls_token1, 324), (aux_sym_global_var_decls_token1, 326),
     (aux_sym_fb_decl_token4, 1332), (aux_sym_method_decl_token1, 330),
     (aux_sym_prog_access_decls_token1, 332), (aux_sym_initial_step_token1, 334),
     (aux_sym_config_init_token1, 336), (aux_sym__stmt_token1, 340), (aux_sym__stmt_token2, 340),
     (aux_sym__stmt_token3, 340), (aux_sym_if_stmt_token1, 342), (aux_sym_case_stmt_token1, 344),
     (aux_sym_for_stmt_token1, 346), (aux_sym_while_stmt_token1, 348),
     (aux_sym_repeat_stmt_token1, 350), (aux_sym_raise_stmt_token1, 352),
     (aux_sym_try_stmt_token1, 354), (aux_sym_try_stmt_token2, 356),
     (aux_sym_catch_clause_token1, 356), (aux_sym_finally_clause_token1, 356), (sym_ld_rung, 358),
     (sym_fbd_network, 360), (sym_c_style_comment, 3), (sym_pascal_style_comment, 3),
     (sym_pragma, 3)]"

lemma ts_parse_row_501_scan: "row_scan tokens_63_2 0 ts_parse_row_501 = Some (Suc (Suc (Suc (Suc 0))))"
  unfolding ts_parse_row_501_def by simp

text \<open>Lines 111935 to 112047.\<close>

definition ts_parse_row_502 :: parse_row where
  "ts_parse_row_502 =
    [(sym_ERR_assign_func_call, 7530), (sym_ERR_unexpected_this_in_path, 2372),
     (sym_ERR_unexpected_super_in_path, 2372), (sym_ERR_fb_variables_after_method, 1630),
     (sym_ERR_var_access_not_allowed, 3160), (sym_ERR_var_config_not_allowed, 3160),
     (sym_ERR_var_global_not_allowed, 3160), (sym_ERR_method_decl_in_body, 3150),
     (sym_extern_pragma, 7490), (sym_wasm_pragma, 3150), (sym_warn_pragma, 7490),
     (sym_allow_pragma, 3140), (sym_test_pragma, 7490), (sym_once_pragma, 7490),
     (sym_must_call_pragma, 7490), (sym_export_pragma, 7490), (sym_pou_pragma, 7194),
     (sym_direct_variable, 7675), (sym_deref_expression, 2373), (sym_variable, 7599),
     (sym_var_access, 2373), (sym_in_out_decls, 3160), (sym_var_decls, 3160),
     (sym_retain_var_decls, 3160), (sym_temp_var_decls, 3160), (sym_external_var_decls, 3160),
     (sym_global_var_decls, 2947), (sym_loc_partly_var_decl, 3160), (sym__fb_variables, 2343),
     (sym_fb_input_decls, 3160), (sym_fb_output_decls, 3160), (sym_no_retain_var_decls, 3160),
     (sym_fb_body, 8847), (sym_method_decl, 2549), (sym_prog_access_decls, 3043), (sym_SFC, 7970),
     (sym_SFC_network, 7612), (sym_initial_step, 7439), (sym_config_init, 3047),
     (sym_variable_access, 7530), (sym_func_call, 2961), (sym_stmt_list, 7970), (sym__stmt, 2024),
     (sym_assign, 3150), (sym_if_stmt, 3150), (sym_case_stmt, 3150), (sym_for_stmt, 3150),
     (sym_while_stmt, 3150), (sym_repeat_stmt, 3150), (sym_raise_stmt, 3150), (sym_try_stmt, 3150),
     (sym_ERR_clause_outside_try, 3150), (sym_begin_path_expression, 2943), (sym_invocation, 2934),
     (sym_any_invocation, 2935), (sym_this_invocation, 2641), (sym_super_invocation, 2641),
     (sym_super_body_invocation, 2935), (sym_path_expression, 2627), (sym_field_expression, 2373),
     (sym_index_expression, 2373), (sym_ladder_diagram, 7970), (sym_fb_diagram, 7970),
     (aux_sym_ERR_fb_variables_after_method_repeat1, 2343), (aux_sym_func_decl_repeat1, 7194),
     (aux_sym_fb_decl_repeat3, 2549), (aux_sym_SFC_repeat1, 7612),
     (aux_sym_stmt_list_repeat1, 2024), (aux_sym_ladder_diagram_repeat1, 8009),
     (aux_sym_fb_diagram_repeat1, 8013), (sym_identifier, 298),
     (aux_sym_ERR_unexpected_this_in_path_token1, 304),
     (aux_sym_ERR_unexpected_super_in_path_token1, 306), (sym_line_comment, 3),
     (anon_sym_LBRACE, 308), (aux_sym_test_pragma_token1, 9), (aux_sym_once_pragma_token1, 11),
     (aux_sym_must_call_pragma_token1, 13), (aux_sym_export_pragma_token1, 15),
     (anon_sym_SEMI, 310), (anon_sym_PERCENT, 312), (aux_sym_input_decls_token1, 314),
     (aux_sym_output_decls_token1, 316), (aux_sym_in_out_decls_token1, 318),
     (aux_sym_var_decls_token1, 320), (aux_sym_temp_var_decls_token1, 322),
     (aux_sym_external_var_decls_token1, 324), (aux_sym_global_var_decls_token1, 326),
     (aux_sym_fb_decl_token4, 1334), (aux_sym_method_decl_token1, 330),
     (aux_sym_prog_access_decls_token1, 332), (aux_sym_initial_step_token1, 334),
     (aux_sym_config_init_token1, 336), (aux_sym__stmt_token1, 340), (aux_sym__stmt_token2, 340),
     (aux_sym__stmt_token3, 340), (aux_sym_if_stmt_token1, 342), (aux_sym_case_stmt_token1, 344),
     (aux_sym_for_stmt_token1, 346), (aux_sym_while_stmt_token1, 348),
     (aux_sym_repeat_stmt_token1, 350), (aux_sym_raise_stmt_token1, 352),
     (aux_sym_try_stmt_token1, 354), (aux_sym_try_stmt_token2, 356),
     (aux_sym_catch_clause_token1, 356), (aux_sym_finally_clause_token1, 356), (sym_ld_rung, 358),
     (sym_fbd_network, 360), (sym_c_style_comment, 3), (sym_pascal_style_comment, 3),
     (sym_pragma, 3)]"

lemma ts_parse_row_502_scan: "row_scan tokens_63_2 0 ts_parse_row_502 = Some (Suc (Suc (Suc (Suc 0))))"
  unfolding ts_parse_row_502_def by simp

text \<open>Lines 112048 to 112160.\<close>

definition ts_parse_row_503 :: parse_row where
  "ts_parse_row_503 =
    [(sym_ERR_assign_func_call, 7530), (sym_ERR_unexpected_this_in_path, 2372),
     (sym_ERR_unexpected_super_in_path, 2372), (sym_ERR_fb_variables_after_method, 1411),
     (sym_ERR_var_access_not_allowed, 3160), (sym_ERR_var_config_not_allowed, 3160),
     (sym_ERR_var_global_not_allowed, 3160), (sym_ERR_method_decl_in_body, 3150),
     (sym_extern_pragma, 7490), (sym_wasm_pragma, 3150), (sym_warn_pragma, 7490),
     (sym_allow_pragma, 3140), (sym_test_pragma, 7490), (sym_once_pragma, 7490),
     (sym_must_call_pragma, 7490), (sym_export_pragma, 7490), (sym_pou_pragma, 7194),
     (sym_direct_variable, 7675), (sym_deref_expression, 2373), (sym_variable, 7599),
     (sym_var_access, 2373), (sym_in_out_decls, 3160), (sym_var_decls, 3160),
     (sym_retain_var_decls, 3160), (sym_temp_var_decls, 3160), (sym_external_var_decls, 3160),
     (sym_global_var_decls, 2947), (sym_loc_partly_var_decl, 3160), (sym__fb_variables, 2343),
     (sym_fb_input_decls, 3160), (sym_fb_output_decls, 3160), (sym_no_retain_var_decls, 3160),
     (sym_fb_body, 9338), (sym_method_decl, 2549), (sym_prog_access_decls, 3043), (sym_SFC, 7970),
     (sym_SFC_network, 7612), (sym_initial_step, 7439), (sym_config_init, 3047),
     (sym_variable_access, 7530), (sym_func_call, 2961), (sym_stmt_list, 7970), (sym__stmt, 2024),
     (sym_assign, 3150), (sym_if_stmt, 3150), (sym_case_stmt, 3150), (sym_for_stmt, 3150),
     (sym_while_stmt, 3150), (sym_repeat_stmt, 3150), (sym_raise_stmt, 3150), (sym_try_stmt, 3150),
     (sym_ERR_clause_outside_try, 3150), (sym_begin_path_expression, 2943), (sym_invocation, 2934),
     (sym_any_invocation, 2935), (sym_this_invocation, 2641), (sym_super_invocation, 2641),
     (sym_super_body_invocation, 2935), (sym_path_expression, 2627), (sym_field_expression, 2373),
     (sym_index_expression, 2373), (sym_ladder_diagram, 7970), (sym_fb_diagram, 7970),
     (aux_sym_ERR_fb_variables_after_method_repeat1, 2343), (aux_sym_func_decl_repeat1, 7194),
     (aux_sym_fb_decl_repeat3, 2549), (aux_sym_SFC_repeat1, 7612),
     (aux_sym_stmt_list_repeat1, 2024), (aux_sym_ladder_diagram_repeat1, 8009),
     (aux_sym_fb_diagram_repeat1, 8013), (sym_identifier, 298),
     (aux_sym_ERR_unexpected_this_in_path_token1, 304),
     (aux_sym_ERR_unexpected_super_in_path_token1, 306), (sym_line_comment, 3),
     (anon_sym_LBRACE, 308), (aux_sym_test_pragma_token1, 9), (aux_sym_once_pragma_token1, 11),
     (aux_sym_must_call_pragma_token1, 13), (aux_sym_export_pragma_token1, 15),
     (anon_sym_SEMI, 310), (anon_sym_PERCENT, 312), (aux_sym_input_decls_token1, 314),
     (aux_sym_output_decls_token1, 316), (aux_sym_in_out_decls_token1, 318),
     (aux_sym_var_decls_token1, 320), (aux_sym_temp_var_decls_token1, 322),
     (aux_sym_external_var_decls_token1, 324), (aux_sym_global_var_decls_token1, 326),
     (aux_sym_fb_decl_token4, 1336), (aux_sym_method_decl_token1, 330),
     (aux_sym_prog_access_decls_token1, 332), (aux_sym_initial_step_token1, 334),
     (aux_sym_config_init_token1, 336), (aux_sym__stmt_token1, 340), (aux_sym__stmt_token2, 340),
     (aux_sym__stmt_token3, 340), (aux_sym_if_stmt_token1, 342), (aux_sym_case_stmt_token1, 344),
     (aux_sym_for_stmt_token1, 346), (aux_sym_while_stmt_token1, 348),
     (aux_sym_repeat_stmt_token1, 350), (aux_sym_raise_stmt_token1, 352),
     (aux_sym_try_stmt_token1, 354), (aux_sym_try_stmt_token2, 356),
     (aux_sym_catch_clause_token1, 356), (aux_sym_finally_clause_token1, 356), (sym_ld_rung, 358),
     (sym_fbd_network, 360), (sym_c_style_comment, 3), (sym_pascal_style_comment, 3),
     (sym_pragma, 3)]"

lemma ts_parse_row_503_scan: "row_scan tokens_63_2 0 ts_parse_row_503 = Some (Suc (Suc (Suc (Suc 0))))"
  unfolding ts_parse_row_503_def by simp

text \<open>Lines 112161 to 112273.\<close>

definition ts_parse_row_504 :: parse_row where
  "ts_parse_row_504 =
    [(sym_ERR_assign_func_call, 7530), (sym_ERR_unexpected_this_in_path, 2372),
     (sym_ERR_unexpected_super_in_path, 2372), (sym_ERR_fb_variables_after_method, 1412),
     (sym_ERR_var_access_not_allowed, 3160), (sym_ERR_var_config_not_allowed, 3160),
     (sym_ERR_var_global_not_allowed, 3160), (sym_ERR_method_decl_in_body, 3150),
     (sym_extern_pragma, 7490), (sym_wasm_pragma, 3150), (sym_warn_pragma, 7490),
     (sym_allow_pragma, 3140), (sym_test_pragma, 7490), (sym_once_pragma, 7490),
     (sym_must_call_pragma, 7490), (sym_export_pragma, 7490), (sym_pou_pragma, 7194),
     (sym_direct_variable, 7675), (sym_deref_expression, 2373), (sym_variable, 7599),
     (sym_var_access, 2373), (sym_in_out_decls, 3160), (sym_var_decls, 3160),
     (sym_retain_var_decls, 3160), (sym_temp_var_decls, 3160), (sym_external_var_decls, 3160),
     (sym_global_var_decls, 2947), (sym_loc_partly_var_decl, 3160), (sym__fb_variables, 2347),
     (sym_fb_input_decls, 3160), (sym_fb_output_decls, 3160), (sym_no_retain_var_decls, 3160),
     (sym_fb_body, 9356), (sym_method_decl, 645), (sym_prog_access_decls, 3043), (sym_SFC, 7970),
     (sym_SFC_network, 7612), (sym_initial_step, 7439), (sym_config_init, 3047),
     (sym_variable_access, 7530), (sym_func_call, 2961), (sym_stmt_list, 7970), (sym__stmt, 2024),
     (sym_assign, 3150), (sym_if_stmt, 3150), (sym_case_stmt, 3150), (sym_for_stmt, 3150),
     (sym_while_stmt, 3150), (sym_repeat_stmt, 3150), (sym_raise_stmt, 3150), (sym_try_stmt, 3150),
     (sym_ERR_clause_outside_try, 3150), (sym_begin_path_expression, 2943), (sym_invocation, 2934),
     (sym_any_invocation, 2935), (sym_this_invocation, 2641), (sym_super_invocation, 2641),
     (sym_super_body_invocation, 2935), (sym_path_expression, 2627), (sym_field_expression, 2373),
     (sym_index_expression, 2373), (sym_ladder_diagram, 7970), (sym_fb_diagram, 7970),
     (aux_sym_ERR_fb_variables_after_method_repeat1, 2347), (aux_sym_func_decl_repeat1, 7194),
     (aux_sym_fb_decl_repeat3, 645), (aux_sym_SFC_repeat1, 7612), (aux_sym_stmt_list_repeat1, 2024),
     (aux_sym_ladder_diagram_repeat1, 8009), (aux_sym_fb_diagram_repeat1, 8013),
     (sym_identifier, 298), (aux_sym_ERR_unexpected_this_in_path_token1, 304),
     (aux_sym_ERR_unexpected_super_in_path_token1, 306), (sym_line_comment, 3),
     (anon_sym_LBRACE, 308), (aux_sym_test_pragma_token1, 9), (aux_sym_once_pragma_token1, 11),
     (aux_sym_must_call_pragma_token1, 13), (aux_sym_export_pragma_token1, 15),
     (anon_sym_SEMI, 310), (anon_sym_PERCENT, 312), (aux_sym_input_decls_token1, 314),
     (aux_sym_output_decls_token1, 316), (aux_sym_in_out_decls_token1, 318),
     (aux_sym_var_decls_token1, 320), (aux_sym_temp_var_decls_token1, 322),
     (aux_sym_external_var_decls_token1, 324), (aux_sym_global_var_decls_token1, 326),
     (aux_sym_fb_decl_token4, 1338), (aux_sym_method_decl_token1, 330),
     (aux_sym_prog_access_decls_token1, 332), (aux_sym_initial_step_token1, 334),
     (aux_sym_config_init_token1, 336), (aux_sym__stmt_token1, 340), (aux_sym__stmt_token2, 340),
     (aux_sym__stmt_token3, 340), (aux_sym_if_stmt_token1, 342), (aux_sym_case_stmt_token1, 344),
     (aux_sym_for_stmt_token1, 346), (aux_sym_while_stmt_token1, 348),
     (aux_sym_repeat_stmt_token1, 350), (aux_sym_raise_stmt_token1, 352),
     (aux_sym_try_stmt_token1, 354), (aux_sym_try_stmt_token2, 356),
     (aux_sym_catch_clause_token1, 356), (aux_sym_finally_clause_token1, 356), (sym_ld_rung, 358),
     (sym_fbd_network, 360), (sym_c_style_comment, 3), (sym_pascal_style_comment, 3),
     (sym_pragma, 3)]"

lemma ts_parse_row_504_scan: "row_scan tokens_63_2 0 ts_parse_row_504 = Some (Suc (Suc (Suc (Suc 0))))"
  unfolding ts_parse_row_504_def by simp

text \<open>Lines 112274 to 112386.\<close>

definition ts_parse_row_505 :: parse_row where
  "ts_parse_row_505 =
    [(sym_ERR_assign_func_call, 7530), (sym_ERR_unexpected_this_in_path, 2372),
     (sym_ERR_unexpected_super_in_path, 2372), (sym_ERR_fb_variables_after_method, 1414),
     (sym_ERR_var_access_not_allowed, 3160), (sym_ERR_var_config_not_allowed, 3160),
     (sym_ERR_var_global_not_allowed, 3160), (sym_ERR_method_decl_in_body, 3150),
     (sym_extern_pragma, 7490), (sym_wasm_pragma, 3150), (sym_warn_pragma, 7490),
     (sym_allow_pragma, 3140), (sym_test_pragma, 7490), (sym_once_pragma, 7490),
     (sym_must_call_pragma, 7490), (sym_export_pragma, 7490), (sym_pou_pragma, 7194),
     (sym_direct_variable, 7675), (sym_deref_expression, 2373), (sym_variable, 7599),
     (sym_var_access, 2373), (sym_in_out_decls, 3160), (sym_var_decls, 3160),
     (sym_retain_var_decls, 3160), (sym_temp_var_decls, 3160), (sym_external_var_decls, 3160),
     (sym_global_var_decls, 2947), (sym_loc_partly_var_decl, 3160), (sym__fb_variables, 2343),
     (sym_fb_input_decls, 3160), (sym_fb_output_decls, 3160), (sym_no_retain_var_decls, 3160),
     (sym_fb_body, 9376), (sym_method_decl, 2549), (sym_prog_access_decls, 3043), (sym_SFC, 7970),
     (sym_SFC_network, 7612), (sym_initial_step, 7439), (sym_config_init, 3047),
     (sym_variable_access, 7530), (sym_func_call, 2961), (sym_stmt_list, 7970), (sym__stmt, 2024),
     (sym_assign, 3150), (sym_if_stmt, 3150), (sym_case_stmt, 3150), (sym_for_stmt, 3150),
     (sym_while_stmt, 3150), (sym_repeat_stmt, 3150), (sym_raise_stmt, 3150), (sym_try_stmt, 3150),
     (sym_ERR_clause_outside_try, 3150), (sym_begin_path_expression, 2943), (sym_invocation, 2934),
     (sym_any_invocation, 2935), (sym_this_invocation, 2641), (sym_super_invocation, 2641),
     (sym_super_body_invocation, 2935), (sym_path_expression, 2627), (sym_field_expression, 2373),
     (sym_index_expression, 2373), (sym_ladder_diagram, 7970), (sym_fb_diagram, 7970),
     (aux_sym_ERR_fb_variables_after_method_repeat1, 2343), (aux_sym_func_decl_repeat1, 7194),
     (aux_sym_fb_decl_repeat3, 2549), (aux_sym_SFC_repeat1, 7612),
     (aux_sym_stmt_list_repeat1, 2024), (aux_sym_ladder_diagram_repeat1, 8009),
     (aux_sym_fb_diagram_repeat1, 8013), (sym_identifier, 298),
     (aux_sym_ERR_unexpected_this_in_path_token1, 304),
     (aux_sym_ERR_unexpected_super_in_path_token1, 306), (sym_line_comment, 3),
     (anon_sym_LBRACE, 308), (aux_sym_test_pragma_token1, 9), (aux_sym_once_pragma_token1, 11),
     (aux_sym_must_call_pragma_token1, 13), (aux_sym_export_pragma_token1, 15),
     (anon_sym_SEMI, 310), (anon_sym_PERCENT, 312), (aux_sym_input_decls_token1, 314),
     (aux_sym_output_decls_token1, 316), (aux_sym_in_out_decls_token1, 318),
     (aux_sym_var_decls_token1, 320), (aux_sym_temp_var_decls_token1, 322),
     (aux_sym_external_var_decls_token1, 324), (aux_sym_global_var_decls_token1, 326),
     (aux_sym_fb_decl_token4, 1340), (aux_sym_method_decl_token1, 330),
     (aux_sym_prog_access_decls_token1, 332), (aux_sym_initial_step_token1, 334),
     (aux_sym_config_init_token1, 336), (aux_sym__stmt_token1, 340), (aux_sym__stmt_token2, 340),
     (aux_sym__stmt_token3, 340), (aux_sym_if_stmt_token1, 342), (aux_sym_case_stmt_token1, 344),
     (aux_sym_for_stmt_token1, 346), (aux_sym_while_stmt_token1, 348),
     (aux_sym_repeat_stmt_token1, 350), (aux_sym_raise_stmt_token1, 352),
     (aux_sym_try_stmt_token1, 354), (aux_sym_try_stmt_token2, 356),
     (aux_sym_catch_clause_token1, 356), (aux_sym_finally_clause_token1, 356), (sym_ld_rung, 358),
     (sym_fbd_network, 360), (sym_c_style_comment, 3), (sym_pascal_style_comment, 3),
     (sym_pragma, 3)]"

lemma ts_parse_row_505_scan: "row_scan tokens_63_2 0 ts_parse_row_505 = Some (Suc (Suc (Suc (Suc 0))))"
  unfolding ts_parse_row_505_def by simp

text \<open>Lines 112387 to 112499.\<close>

definition ts_parse_row_506 :: parse_row where
  "ts_parse_row_506 =
    [(sym_ERR_assign_func_call, 7530), (sym_ERR_unexpected_this_in_path, 2372),
     (sym_ERR_unexpected_super_in_path, 2372), (sym_ERR_fb_variables_after_method, 1415),
     (sym_ERR_var_access_not_allowed, 3160), (sym_ERR_var_config_not_allowed, 3160),
     (sym_ERR_var_global_not_allowed, 3160), (sym_ERR_method_decl_in_body, 3150),
     (sym_extern_pragma, 7490), (sym_wasm_pragma, 3150), (sym_warn_pragma, 7490),
     (sym_allow_pragma, 3140), (sym_test_pragma, 7490), (sym_once_pragma, 7490),
     (sym_must_call_pragma, 7490), (sym_export_pragma, 7490), (sym_pou_pragma, 7194),
     (sym_direct_variable, 7675), (sym_deref_expression, 2373), (sym_variable, 7599),
     (sym_var_access, 2373), (sym_in_out_decls, 3160), (sym_var_decls, 3160),
     (sym_retain_var_decls, 3160), (sym_temp_var_decls, 3160), (sym_external_var_decls, 3160),
     (sym_global_var_decls, 2947), (sym_loc_partly_var_decl, 3160), (sym__fb_variables, 2347),
     (sym_fb_input_decls, 3160), (sym_fb_output_decls, 3160), (sym_no_retain_var_decls, 3160),
     (sym_fb_body, 9388), (sym_method_decl, 646), (sym_prog_access_decls, 3043), (sym_SFC, 7970),
     (sym_SFC_network, 7612), (sym_initial_step, 7439), (sym_config_init, 3047),
     (sym_variable_access, 7530), (sym_func_call, 2961), (sym_stmt_list, 7970), (sym__stmt, 2024),
     (sym_assign, 3150), (sym_if_stmt, 3150), (sym_case_stmt, 3150), (sym_for_stmt, 3150),
     (sym_while_stmt, 3150), (sym_repeat_stmt, 3150), (sym_raise_stmt, 3150), (sym_try_stmt, 3150),
     (sym_ERR_clause_outside_try, 3150), (sym_begin_path_expression, 2943), (sym_invocation, 2934),
     (sym_any_invocation, 2935), (sym_this_invocation, 2641), (sym_super_invocation, 2641),
     (sym_super_body_invocation, 2935), (sym_path_expression, 2627), (sym_field_expression, 2373),
     (sym_index_expression, 2373), (sym_ladder_diagram, 7970), (sym_fb_diagram, 7970),
     (aux_sym_ERR_fb_variables_after_method_repeat1, 2347), (aux_sym_func_decl_repeat1, 7194),
     (aux_sym_fb_decl_repeat3, 646), (aux_sym_SFC_repeat1, 7612), (aux_sym_stmt_list_repeat1, 2024),
     (aux_sym_ladder_diagram_repeat1, 8009), (aux_sym_fb_diagram_repeat1, 8013),
     (sym_identifier, 298), (aux_sym_ERR_unexpected_this_in_path_token1, 304),
     (aux_sym_ERR_unexpected_super_in_path_token1, 306), (sym_line_comment, 3),
     (anon_sym_LBRACE, 308), (aux_sym_test_pragma_token1, 9), (aux_sym_once_pragma_token1, 11),
     (aux_sym_must_call_pragma_token1, 13), (aux_sym_export_pragma_token1, 15),
     (anon_sym_SEMI, 310), (anon_sym_PERCENT, 312), (aux_sym_input_decls_token1, 314),
     (aux_sym_output_decls_token1, 316), (aux_sym_in_out_decls_token1, 318),
     (aux_sym_var_decls_token1, 320), (aux_sym_temp_var_decls_token1, 322),
     (aux_sym_external_var_decls_token1, 324), (aux_sym_global_var_decls_token1, 326),
     (aux_sym_fb_decl_token4, 1342), (aux_sym_method_decl_token1, 330),
     (aux_sym_prog_access_decls_token1, 332), (aux_sym_initial_step_token1, 334),
     (aux_sym_config_init_token1, 336), (aux_sym__stmt_token1, 340), (aux_sym__stmt_token2, 340),
     (aux_sym__stmt_token3, 340), (aux_sym_if_stmt_token1, 342), (aux_sym_case_stmt_token1, 344),
     (aux_sym_for_stmt_token1, 346), (aux_sym_while_stmt_token1, 348),
     (aux_sym_repeat_stmt_token1, 350), (aux_sym_raise_stmt_token1, 352),
     (aux_sym_try_stmt_token1, 354), (aux_sym_try_stmt_token2, 356),
     (aux_sym_catch_clause_token1, 356), (aux_sym_finally_clause_token1, 356), (sym_ld_rung, 358),
     (sym_fbd_network, 360), (sym_c_style_comment, 3), (sym_pascal_style_comment, 3),
     (sym_pragma, 3)]"

lemma ts_parse_row_506_scan: "row_scan tokens_63_2 0 ts_parse_row_506 = Some (Suc (Suc (Suc (Suc 0))))"
  unfolding ts_parse_row_506_def by simp

text \<open>Lines 112500 to 112612.\<close>

definition ts_parse_row_507 :: parse_row where
  "ts_parse_row_507 =
    [(sym_ERR_assign_func_call, 7530), (sym_ERR_unexpected_this_in_path, 2372),
     (sym_ERR_unexpected_super_in_path, 2372), (sym_ERR_fb_variables_after_method, 1633),
     (sym_ERR_var_access_not_allowed, 3160), (sym_ERR_var_config_not_allowed, 3160),
     (sym_ERR_var_global_not_allowed, 3160), (sym_ERR_method_decl_in_body, 3150),
     (sym_extern_pragma, 7490), (sym_wasm_pragma, 3150), (sym_warn_pragma, 7490),
     (sym_allow_pragma, 3140), (sym_test_pragma, 7490), (sym_once_pragma, 7490),
     (sym_must_call_pragma, 7490), (sym_export_pragma, 7490), (sym_pou_pragma, 7194),
     (sym_direct_variable, 7675), (sym_deref_expression, 2373), (sym_variable, 7599),
     (sym_var_access, 2373), (sym_in_out_decls, 3160), (sym_var_decls, 3160),
     (sym_retain_var_decls, 3160), (sym_temp_var_decls, 3160), (sym_external_var_decls, 3160),
     (sym_global_var_decls, 2947), (sym_loc_partly_var_decl, 3160), (sym__fb_variables, 2347),
     (sym_fb_input_decls, 3160), (sym_fb_output_decls, 3160), (sym_no_retain_var_decls, 3160),
     (sym_fb_body, 8878), (sym_method_decl, 348), (sym_prog_access_decls, 3043), (sym_SFC, 7970),
     (sym_SFC_network, 7612), (sym_initial_step, 7439), (sym_config_init, 3047),
     (sym_variable_access, 7530), (sym_func_call, 2961), (sym_stmt_list, 7970), (sym__stmt, 2024),
     (sym_assign, 3150), (sym_if_stmt, 3150), (sym_case_stmt, 3150), (sym_for_stmt, 3150),
     (sym_while_stmt, 3150), (sym_repeat_stmt, 3150), (sym_raise_stmt, 3150), (sym_try_stmt, 3150),
     (sym_ERR_clause_outside_try, 3150), (sym_begin_path_expression, 2943), (sym_invocation, 2934),
     (sym_any_invocation, 2935), (sym_this_invocation, 2641), (sym_super_invocation, 2641),
     (sym_super_body_invocation, 2935), (sym_path_expression, 2627), (sym_field_expression, 2373),
     (sym_index_expression, 2373), (sym_ladder_diagram, 7970), (sym_fb_diagram, 7970),
     (aux_sym_ERR_fb_variables_after_method_repeat1, 2347), (aux_sym_func_decl_repeat1, 7194),
     (aux_sym_fb_decl_repeat3, 348), (aux_sym_SFC_repeat1, 7612), (aux_sym_stmt_list_repeat1, 2024),
     (aux_sym_ladder_diagram_repeat1, 8009), (aux_sym_fb_diagram_repeat1, 8013),
     (sym_identifier, 298), (aux_sym_ERR_unexpected_this_in_path_token1, 304),
     (aux_sym_ERR_unexpected_super_in_path_token1, 306), (sym_line_comment, 3),
     (anon_sym_LBRACE, 308), (aux_sym_test_pragma_token1, 9), (aux_sym_once_pragma_token1, 11),
     (aux_sym_must_call_pragma_token1, 13), (aux_sym_export_pragma_token1, 15),
     (anon_sym_SEMI, 310), (anon_sym_PERCENT, 312), (aux_sym_input_decls_token1, 314),
     (aux_sym_output_decls_token1, 316), (aux_sym_in_out_decls_token1, 318),
     (aux_sym_var_decls_token1, 320), (aux_sym_temp_var_decls_token1, 322),
     (aux_sym_external_var_decls_token1, 324), (aux_sym_global_var_decls_token1, 326),
     (aux_sym_fb_decl_token4, 1344), (aux_sym_method_decl_token1, 330),
     (aux_sym_prog_access_decls_token1, 332), (aux_sym_initial_step_token1, 334),
     (aux_sym_config_init_token1, 336), (aux_sym__stmt_token1, 340), (aux_sym__stmt_token2, 340),
     (aux_sym__stmt_token3, 340), (aux_sym_if_stmt_token1, 342), (aux_sym_case_stmt_token1, 344),
     (aux_sym_for_stmt_token1, 346), (aux_sym_while_stmt_token1, 348),
     (aux_sym_repeat_stmt_token1, 350), (aux_sym_raise_stmt_token1, 352),
     (aux_sym_try_stmt_token1, 354), (aux_sym_try_stmt_token2, 356),
     (aux_sym_catch_clause_token1, 356), (aux_sym_finally_clause_token1, 356), (sym_ld_rung, 358),
     (sym_fbd_network, 360), (sym_c_style_comment, 3), (sym_pascal_style_comment, 3),
     (sym_pragma, 3)]"

lemma ts_parse_row_507_scan: "row_scan tokens_63_2 0 ts_parse_row_507 = Some (Suc (Suc (Suc (Suc 0))))"
  unfolding ts_parse_row_507_def by simp

text \<open>Lines 112613 to 112725.\<close>

definition ts_parse_row_508 :: parse_row where
  "ts_parse_row_508 =
    [(sym_ERR_assign_func_call, 7530), (sym_ERR_unexpected_this_in_path, 2372),
     (sym_ERR_unexpected_super_in_path, 2372), (sym_ERR_fb_variables_after_method, 1419),
     (sym_ERR_var_access_not_allowed, 3160), (sym_ERR_var_config_not_allowed, 3160),
     (sym_ERR_var_global_not_allowed, 3160), (sym_ERR_method_decl_in_body, 3150),
     (sym_extern_pragma, 7490), (sym_wasm_pragma, 3150), (sym_warn_pragma, 7490),
     (sym_allow_pragma, 3140), (sym_test_pragma, 7490), (sym_once_pragma, 7490),
     (sym_must_call_pragma, 7490), (sym_export_pragma, 7490), (sym_pou_pragma, 7194),
     (sym_direct_variable, 7675), (sym_deref_expression, 2373), (sym_variable, 7599),
     (sym_var_access, 2373), (sym_in_out_decls, 3160), (sym_var_decls, 3160),
     (sym_retain_var_decls, 3160), (sym_temp_var_decls, 3160), (sym_external_var_decls, 3160),
     (sym_global_var_decls, 2947), (sym_loc_partly_var_decl, 3160), (sym__fb_variables, 2343),
     (sym_fb_input_decls, 3160), (sym_fb_output_decls, 3160), (sym_no_retain_var_decls, 3160),
     (sym_fb_body, 9423), (sym_method_decl, 2549), (sym_prog_access_decls, 3043), (sym_SFC, 7970),
     (sym_SFC_network, 7612), (sym_initial_step, 7439), (sym_config_init, 3047),
     (sym_variable_access, 7530), (sym_func_call, 2961), (sym_stmt_list, 7970), (sym__stmt, 2024),
     (sym_assign, 3150), (sym_if_stmt, 3150), (sym_case_stmt, 3150), (sym_for_stmt, 3150),
     (sym_while_stmt, 3150), (sym_repeat_stmt, 3150), (sym_raise_stmt, 3150), (sym_try_stmt, 3150),
     (sym_ERR_clause_outside_try, 3150), (sym_begin_path_expression, 2943), (sym_invocation, 2934),
     (sym_any_invocation, 2935), (sym_this_invocation, 2641), (sym_super_invocation, 2641),
     (sym_super_body_invocation, 2935), (sym_path_expression, 2627), (sym_field_expression, 2373),
     (sym_index_expression, 2373), (sym_ladder_diagram, 7970), (sym_fb_diagram, 7970),
     (aux_sym_ERR_fb_variables_after_method_repeat1, 2343), (aux_sym_func_decl_repeat1, 7194),
     (aux_sym_fb_decl_repeat3, 2549), (aux_sym_SFC_repeat1, 7612),
     (aux_sym_stmt_list_repeat1, 2024), (aux_sym_ladder_diagram_repeat1, 8009),
     (aux_sym_fb_diagram_repeat1, 8013), (sym_identifier, 298),
     (aux_sym_ERR_unexpected_this_in_path_token1, 304),
     (aux_sym_ERR_unexpected_super_in_path_token1, 306), (sym_line_comment, 3),
     (anon_sym_LBRACE, 308), (aux_sym_test_pragma_token1, 9), (aux_sym_once_pragma_token1, 11),
     (aux_sym_must_call_pragma_token1, 13), (aux_sym_export_pragma_token1, 15),
     (anon_sym_SEMI, 310), (anon_sym_PERCENT, 312), (aux_sym_input_decls_token1, 314),
     (aux_sym_output_decls_token1, 316), (aux_sym_in_out_decls_token1, 318),
     (aux_sym_var_decls_token1, 320), (aux_sym_temp_var_decls_token1, 322),
     (aux_sym_external_var_decls_token1, 324), (aux_sym_global_var_decls_token1, 326),
     (aux_sym_fb_decl_token4, 1346), (aux_sym_method_decl_token1, 330),
     (aux_sym_prog_access_decls_token1, 332), (aux_sym_initial_step_token1, 334),
     (aux_sym_config_init_token1, 336), (aux_sym__stmt_token1, 340), (aux_sym__stmt_token2, 340),
     (aux_sym__stmt_token3, 340), (aux_sym_if_stmt_token1, 342), (aux_sym_case_stmt_token1, 344),
     (aux_sym_for_stmt_token1, 346), (aux_sym_while_stmt_token1, 348),
     (aux_sym_repeat_stmt_token1, 350), (aux_sym_raise_stmt_token1, 352),
     (aux_sym_try_stmt_token1, 354), (aux_sym_try_stmt_token2, 356),
     (aux_sym_catch_clause_token1, 356), (aux_sym_finally_clause_token1, 356), (sym_ld_rung, 358),
     (sym_fbd_network, 360), (sym_c_style_comment, 3), (sym_pascal_style_comment, 3),
     (sym_pragma, 3)]"

lemma ts_parse_row_508_scan: "row_scan tokens_63_2 0 ts_parse_row_508 = Some (Suc (Suc (Suc (Suc 0))))"
  unfolding ts_parse_row_508_def by simp

text \<open>Lines 112726 to 112838.\<close>

definition ts_parse_row_509 :: parse_row where
  "ts_parse_row_509 =
    [(sym_ERR_assign_func_call, 7530), (sym_ERR_unexpected_this_in_path, 2372),
     (sym_ERR_unexpected_super_in_path, 2372), (sym_ERR_fb_variables_after_method, 1420),
     (sym_ERR_var_access_not_allowed, 3160), (sym_ERR_var_config_not_allowed, 3160),
     (sym_ERR_var_global_not_allowed, 3160), (sym_ERR_method_decl_in_body, 3150),
     (sym_extern_pragma, 7490), (sym_wasm_pragma, 3150), (sym_warn_pragma, 7490),
     (sym_allow_pragma, 3140), (sym_test_pragma, 7490), (sym_once_pragma, 7490),
     (sym_must_call_pragma, 7490), (sym_export_pragma, 7490), (sym_pou_pragma, 7194),
     (sym_direct_variable, 7675), (sym_deref_expression, 2373), (sym_variable, 7599),
     (sym_var_access, 2373), (sym_in_out_decls, 3160), (sym_var_decls, 3160),
     (sym_retain_var_decls, 3160), (sym_temp_var_decls, 3160), (sym_external_var_decls, 3160),
     (sym_global_var_decls, 2947), (sym_loc_partly_var_decl, 3160), (sym__fb_variables, 2343),
     (sym_fb_input_decls, 3160), (sym_fb_output_decls, 3160), (sym_no_retain_var_decls, 3160),
     (sym_fb_body, 9486), (sym_method_decl, 2549), (sym_prog_access_decls, 3043), (sym_SFC, 7970),
     (sym_SFC_network, 7612), (sym_initial_step, 7439), (sym_config_init, 3047),
     (sym_variable_access, 7530), (sym_func_call, 2961), (sym_stmt_list, 7970), (sym__stmt, 2024),
     (sym_assign, 3150), (sym_if_stmt, 3150), (sym_case_stmt, 3150), (sym_for_stmt, 3150),
     (sym_while_stmt, 3150), (sym_repeat_stmt, 3150), (sym_raise_stmt, 3150), (sym_try_stmt, 3150),
     (sym_ERR_clause_outside_try, 3150), (sym_begin_path_expression, 2943), (sym_invocation, 2934),
     (sym_any_invocation, 2935), (sym_this_invocation, 2641), (sym_super_invocation, 2641),
     (sym_super_body_invocation, 2935), (sym_path_expression, 2627), (sym_field_expression, 2373),
     (sym_index_expression, 2373), (sym_ladder_diagram, 7970), (sym_fb_diagram, 7970),
     (aux_sym_ERR_fb_variables_after_method_repeat1, 2343), (aux_sym_func_decl_repeat1, 7194),
     (aux_sym_fb_decl_repeat3, 2549), (aux_sym_SFC_repeat1, 7612),
     (aux_sym_stmt_list_repeat1, 2024), (aux_sym_ladder_diagram_repeat1, 8009),
     (aux_sym_fb_diagram_repeat1, 8013), (sym_identifier, 298),
     (aux_sym_ERR_unexpected_this_in_path_token1, 304),
     (aux_sym_ERR_unexpected_super_in_path_token1, 306), (sym_line_comment, 3),
     (anon_sym_LBRACE, 308), (aux_sym_test_pragma_token1, 9), (aux_sym_once_pragma_token1, 11),
     (aux_sym_must_call_pragma_token1, 13), (aux_sym_export_pragma_token1, 15),
     (anon_sym_SEMI, 310), (anon_sym_PERCENT, 312), (aux_sym_input_decls_token1, 314),
     (aux_sym_output_decls_token1, 316), (aux_sym_in_out_decls_token1, 318),
     (aux_sym_var_decls_token1, 320), (aux_sym_temp_var_decls_token1, 322),
     (aux_sym_external_var_decls_token1, 324), (aux_sym_global_var_decls_token1, 326),
     (aux_sym_fb_decl_token4, 1348), (aux_sym_method_decl_token1, 330),
     (aux_sym_prog_access_decls_token1, 332), (aux_sym_initial_step_token1, 334),
     (aux_sym_config_init_token1, 336), (aux_sym__stmt_token1, 340), (aux_sym__stmt_token2, 340),
     (aux_sym__stmt_token3, 340), (aux_sym_if_stmt_token1, 342), (aux_sym_case_stmt_token1, 344),
     (aux_sym_for_stmt_token1, 346), (aux_sym_while_stmt_token1, 348),
     (aux_sym_repeat_stmt_token1, 350), (aux_sym_raise_stmt_token1, 352),
     (aux_sym_try_stmt_token1, 354), (aux_sym_try_stmt_token2, 356),
     (aux_sym_catch_clause_token1, 356), (aux_sym_finally_clause_token1, 356), (sym_ld_rung, 358),
     (sym_fbd_network, 360), (sym_c_style_comment, 3), (sym_pascal_style_comment, 3),
     (sym_pragma, 3)]"

lemma ts_parse_row_509_scan: "row_scan tokens_63_2 0 ts_parse_row_509 = Some (Suc (Suc (Suc (Suc 0))))"
  unfolding ts_parse_row_509_def by simp

text \<open>Lines 112839 to 112951.\<close>

definition ts_parse_row_510 :: parse_row where
  "ts_parse_row_510 =
    [(sym_ERR_assign_func_call, 7530), (sym_ERR_unexpected_this_in_path, 2372),
     (sym_ERR_unexpected_super_in_path, 2372), (sym_ERR_fb_variables_after_method, 1421),
     (sym_ERR_var_access_not_allowed, 3160), (sym_ERR_var_config_not_allowed, 3160),
     (sym_ERR_var_global_not_allowed, 3160), (sym_ERR_method_decl_in_body, 3150),
     (sym_extern_pragma, 7490), (sym_wasm_pragma, 3150), (sym_warn_pragma, 7490),
     (sym_allow_pragma, 3140), (sym_test_pragma, 7490), (sym_once_pragma, 7490),
     (sym_must_call_pragma, 7490), (sym_export_pragma, 7490), (sym_pou_pragma, 7194),
     (sym_direct_variable, 7675), (sym_deref_expression, 2373), (sym_variable, 7599),
     (sym_var_access, 2373), (sym_in_out_decls, 3160), (sym_var_decls, 3160),
     (sym_retain_var_decls, 3160), (sym_temp_var_decls, 3160), (sym_external_var_decls, 3160),
     (sym_global_var_decls, 2947), (sym_loc_partly_var_decl, 3160), (sym__fb_variables, 2347),
     (sym_fb_input_decls, 3160), (sym_fb_output_decls, 3160), (sym_no_retain_var_decls, 3160),
     (sym_fb_body, 9516), (sym_method_decl, 649), (sym_prog_access_decls, 3043), (sym_SFC, 7970),
     (sym_SFC_network, 7612), (sym_initial_step, 7439), (sym_config_init, 3047),
     (sym_variable_access, 7530), (sym_func_call, 2961), (sym_stmt_list, 7970), (sym__stmt, 2024),
     (sym_assign, 3150), (sym_if_stmt, 3150), (sym_case_stmt, 3150), (sym_for_stmt, 3150),
     (sym_while_stmt, 3150), (sym_repeat_stmt, 3150), (sym_raise_stmt, 3150), (sym_try_stmt, 3150),
     (sym_ERR_clause_outside_try, 3150), (sym_begin_path_expression, 2943), (sym_invocation, 2934),
     (sym_any_invocation, 2935), (sym_this_invocation, 2641), (sym_super_invocation, 2641),
     (sym_super_body_invocation, 2935), (sym_path_expression, 2627), (sym_field_expression, 2373),
     (sym_index_expression, 2373), (sym_ladder_diagram, 7970), (sym_fb_diagram, 7970),
     (aux_sym_ERR_fb_variables_after_method_repeat1, 2347), (aux_sym_func_decl_repeat1, 7194),
     (aux_sym_fb_decl_repeat3, 649), (aux_sym_SFC_repeat1, 7612), (aux_sym_stmt_list_repeat1, 2024),
     (aux_sym_ladder_diagram_repeat1, 8009), (aux_sym_fb_diagram_repeat1, 8013),
     (sym_identifier, 298), (aux_sym_ERR_unexpected_this_in_path_token1, 304),
     (aux_sym_ERR_unexpected_super_in_path_token1, 306), (sym_line_comment, 3),
     (anon_sym_LBRACE, 308), (aux_sym_test_pragma_token1, 9), (aux_sym_once_pragma_token1, 11),
     (aux_sym_must_call_pragma_token1, 13), (aux_sym_export_pragma_token1, 15),
     (anon_sym_SEMI, 310), (anon_sym_PERCENT, 312), (aux_sym_input_decls_token1, 314),
     (aux_sym_output_decls_token1, 316), (aux_sym_in_out_decls_token1, 318),
     (aux_sym_var_decls_token1, 320), (aux_sym_temp_var_decls_token1, 322),
     (aux_sym_external_var_decls_token1, 324), (aux_sym_global_var_decls_token1, 326),
     (aux_sym_fb_decl_token4, 1350), (aux_sym_method_decl_token1, 330),
     (aux_sym_prog_access_decls_token1, 332), (aux_sym_initial_step_token1, 334),
     (aux_sym_config_init_token1, 336), (aux_sym__stmt_token1, 340), (aux_sym__stmt_token2, 340),
     (aux_sym__stmt_token3, 340), (aux_sym_if_stmt_token1, 342), (aux_sym_case_stmt_token1, 344),
     (aux_sym_for_stmt_token1, 346), (aux_sym_while_stmt_token1, 348),
     (aux_sym_repeat_stmt_token1, 350), (aux_sym_raise_stmt_token1, 352),
     (aux_sym_try_stmt_token1, 354), (aux_sym_try_stmt_token2, 356),
     (aux_sym_catch_clause_token1, 356), (aux_sym_finally_clause_token1, 356), (sym_ld_rung, 358),
     (sym_fbd_network, 360), (sym_c_style_comment, 3), (sym_pascal_style_comment, 3),
     (sym_pragma, 3)]"

lemma ts_parse_row_510_scan: "row_scan tokens_63_2 0 ts_parse_row_510 = Some (Suc (Suc (Suc (Suc 0))))"
  unfolding ts_parse_row_510_def by simp

text \<open>Lines 112952 to 113064.\<close>

definition ts_parse_row_511 :: parse_row where
  "ts_parse_row_511 =
    [(sym_ERR_assign_func_call, 7530), (sym_ERR_unexpected_this_in_path, 2372),
     (sym_ERR_unexpected_super_in_path, 2372), (sym_ERR_fb_variables_after_method, 1423),
     (sym_ERR_var_access_not_allowed, 3160), (sym_ERR_var_config_not_allowed, 3160),
     (sym_ERR_var_global_not_allowed, 3160), (sym_ERR_method_decl_in_body, 3150),
     (sym_extern_pragma, 7490), (sym_wasm_pragma, 3150), (sym_warn_pragma, 7490),
     (sym_allow_pragma, 3140), (sym_test_pragma, 7490), (sym_once_pragma, 7490),
     (sym_must_call_pragma, 7490), (sym_export_pragma, 7490), (sym_pou_pragma, 7194),
     (sym_direct_variable, 7675), (sym_deref_expression, 2373), (sym_variable, 7599),
     (sym_var_access, 2373), (sym_in_out_decls, 3160), (sym_var_decls, 3160),
     (sym_retain_var_decls, 3160), (sym_temp_var_decls, 3160), (sym_external_var_decls, 3160),
     (sym_global_var_decls, 2947), (sym_loc_partly_var_decl, 3160), (sym__fb_variables, 2343),
     (sym_fb_input_decls, 3160), (sym_fb_output_decls, 3160), (sym_no_retain_var_decls, 3160),
     (sym_fb_body, 9548), (sym_method_decl, 2549), (sym_prog_access_decls, 3043), (sym_SFC, 7970),
     (sym_SFC_network, 7612), (sym_initial_step, 7439), (sym_config_init, 3047),
     (sym_variable_access, 7530), (sym_func_call, 2961), (sym_stmt_list, 7970), (sym__stmt, 2024),
     (sym_assign, 3150), (sym_if_stmt, 3150), (sym_case_stmt, 3150), (sym_for_stmt, 3150),
     (sym_while_stmt, 3150), (sym_repeat_stmt, 3150), (sym_raise_stmt, 3150), (sym_try_stmt, 3150),
     (sym_ERR_clause_outside_try, 3150), (sym_begin_path_expression, 2943), (sym_invocation, 2934),
     (sym_any_invocation, 2935), (sym_this_invocation, 2641), (sym_super_invocation, 2641),
     (sym_super_body_invocation, 2935), (sym_path_expression, 2627), (sym_field_expression, 2373),
     (sym_index_expression, 2373), (sym_ladder_diagram, 7970), (sym_fb_diagram, 7970),
     (aux_sym_ERR_fb_variables_after_method_repeat1, 2343), (aux_sym_func_decl_repeat1, 7194),
     (aux_sym_fb_decl_repeat3, 2549), (aux_sym_SFC_repeat1, 7612),
     (aux_sym_stmt_list_repeat1, 2024), (aux_sym_ladder_diagram_repeat1, 8009),
     (aux_sym_fb_diagram_repeat1, 8013), (sym_identifier, 298),
     (aux_sym_ERR_unexpected_this_in_path_token1, 304),
     (aux_sym_ERR_unexpected_super_in_path_token1, 306), (sym_line_comment, 3),
     (anon_sym_LBRACE, 308), (aux_sym_test_pragma_token1, 9), (aux_sym_once_pragma_token1, 11),
     (aux_sym_must_call_pragma_token1, 13), (aux_sym_export_pragma_token1, 15),
     (anon_sym_SEMI, 310), (anon_sym_PERCENT, 312), (aux_sym_input_decls_token1, 314),
     (aux_sym_output_decls_token1, 316), (aux_sym_in_out_decls_token1, 318),
     (aux_sym_var_decls_token1, 320), (aux_sym_temp_var_decls_token1, 322),
     (aux_sym_external_var_decls_token1, 324), (aux_sym_global_var_decls_token1, 326),
     (aux_sym_fb_decl_token4, 1352), (aux_sym_method_decl_token1, 330),
     (aux_sym_prog_access_decls_token1, 332), (aux_sym_initial_step_token1, 334),
     (aux_sym_config_init_token1, 336), (aux_sym__stmt_token1, 340), (aux_sym__stmt_token2, 340),
     (aux_sym__stmt_token3, 340), (aux_sym_if_stmt_token1, 342), (aux_sym_case_stmt_token1, 344),
     (aux_sym_for_stmt_token1, 346), (aux_sym_while_stmt_token1, 348),
     (aux_sym_repeat_stmt_token1, 350), (aux_sym_raise_stmt_token1, 352),
     (aux_sym_try_stmt_token1, 354), (aux_sym_try_stmt_token2, 356),
     (aux_sym_catch_clause_token1, 356), (aux_sym_finally_clause_token1, 356), (sym_ld_rung, 358),
     (sym_fbd_network, 360), (sym_c_style_comment, 3), (sym_pascal_style_comment, 3),
     (sym_pragma, 3)]"

lemma ts_parse_row_511_scan: "row_scan tokens_63_2 0 ts_parse_row_511 = Some (Suc (Suc (Suc (Suc 0))))"
  unfolding ts_parse_row_511_def by simp

text \<open>Lines 113065 to 113177.\<close>

definition ts_parse_row_512 :: parse_row where
  "ts_parse_row_512 =
    [(sym_ERR_assign_func_call, 7530), (sym_ERR_unexpected_this_in_path, 2372),
     (sym_ERR_unexpected_super_in_path, 2372), (sym_ERR_fb_variables_after_method, 1424),
     (sym_ERR_var_access_not_allowed, 3160), (sym_ERR_var_config_not_allowed, 3160),
     (sym_ERR_var_global_not_allowed, 3160), (sym_ERR_method_decl_in_body, 3150),
     (sym_extern_pragma, 7490), (sym_wasm_pragma, 3150), (sym_warn_pragma, 7490),
     (sym_allow_pragma, 3140), (sym_test_pragma, 7490), (sym_once_pragma, 7490),
     (sym_must_call_pragma, 7490), (sym_export_pragma, 7490), (sym_pou_pragma, 7194),
     (sym_direct_variable, 7675), (sym_deref_expression, 2373), (sym_variable, 7599),
     (sym_var_access, 2373), (sym_in_out_decls, 3160), (sym_var_decls, 3160),
     (sym_retain_var_decls, 3160), (sym_temp_var_decls, 3160), (sym_external_var_decls, 3160),
     (sym_global_var_decls, 2947), (sym_loc_partly_var_decl, 3160), (sym__fb_variables, 2347),
     (sym_fb_input_decls, 3160), (sym_fb_output_decls, 3160), (sym_no_retain_var_decls, 3160),
     (sym_fb_body, 9576), (sym_method_decl, 650), (sym_prog_access_decls, 3043), (sym_SFC, 7970),
     (sym_SFC_network, 7612), (sym_initial_step, 7439), (sym_config_init, 3047),
     (sym_variable_access, 7530), (sym_func_call, 2961), (sym_stmt_list, 7970), (sym__stmt, 2024),
     (sym_assign, 3150), (sym_if_stmt, 3150), (sym_case_stmt, 3150), (sym_for_stmt, 3150),
     (sym_while_stmt, 3150), (sym_repeat_stmt, 3150), (sym_raise_stmt, 3150), (sym_try_stmt, 3150),
     (sym_ERR_clause_outside_try, 3150), (sym_begin_path_expression, 2943), (sym_invocation, 2934),
     (sym_any_invocation, 2935), (sym_this_invocation, 2641), (sym_super_invocation, 2641),
     (sym_super_body_invocation, 2935), (sym_path_expression, 2627), (sym_field_expression, 2373),
     (sym_index_expression, 2373), (sym_ladder_diagram, 7970), (sym_fb_diagram, 7970),
     (aux_sym_ERR_fb_variables_after_method_repeat1, 2347), (aux_sym_func_decl_repeat1, 7194),
     (aux_sym_fb_decl_repeat3, 650), (aux_sym_SFC_repeat1, 7612), (aux_sym_stmt_list_repeat1, 2024),
     (aux_sym_ladder_diagram_repeat1, 8009), (aux_sym_fb_diagram_repeat1, 8013),
     (sym_identifier, 298), (aux_sym_ERR_unexpected_this_in_path_token1, 304),
     (aux_sym_ERR_unexpected_super_in_path_token1, 306), (sym_line_comment, 3),
     (anon_sym_LBRACE, 308), (aux_sym_test_pragma_token1, 9), (aux_sym_once_pragma_token1, 11),
     (aux_sym_must_call_pragma_token1, 13), (aux_sym_export_pragma_token1, 15),
     (anon_sym_SEMI, 310), (anon_sym_PERCENT, 312), (aux_sym_input_decls_token1, 314),
     (aux_sym_output_decls_token1, 316), (aux_sym_in_out_decls_token1, 318),
     (aux_sym_var_decls_token1, 320), (aux_sym_temp_var_decls_token1, 322),
     (aux_sym_external_var_decls_token1, 324), (aux_sym_global_var_decls_token1, 326),
     (aux_sym_fb_decl_token4, 1354), (aux_sym_method_decl_token1, 330),
     (aux_sym_prog_access_decls_token1, 332), (aux_sym_initial_step_token1, 334),
     (aux_sym_config_init_token1, 336), (aux_sym__stmt_token1, 340), (aux_sym__stmt_token2, 340),
     (aux_sym__stmt_token3, 340), (aux_sym_if_stmt_token1, 342), (aux_sym_case_stmt_token1, 344),
     (aux_sym_for_stmt_token1, 346), (aux_sym_while_stmt_token1, 348),
     (aux_sym_repeat_stmt_token1, 350), (aux_sym_raise_stmt_token1, 352),
     (aux_sym_try_stmt_token1, 354), (aux_sym_try_stmt_token2, 356),
     (aux_sym_catch_clause_token1, 356), (aux_sym_finally_clause_token1, 356), (sym_ld_rung, 358),
     (sym_fbd_network, 360), (sym_c_style_comment, 3), (sym_pascal_style_comment, 3),
     (sym_pragma, 3)]"

lemma ts_parse_row_512_scan: "row_scan tokens_63_2 0 ts_parse_row_512 = Some (Suc (Suc (Suc (Suc 0))))"
  unfolding ts_parse_row_512_def by simp

text \<open>Lines 113178 to 113290.\<close>

definition ts_parse_row_513 :: parse_row where
  "ts_parse_row_513 =
    [(sym_ERR_assign_func_call, 7530), (sym_ERR_unexpected_this_in_path, 2372),
     (sym_ERR_unexpected_super_in_path, 2372), (sym_ERR_fb_variables_after_method, 1242),
     (sym_ERR_var_access_not_allowed, 3160), (sym_ERR_var_config_not_allowed, 3160),
     (sym_ERR_var_global_not_allowed, 3160), (sym_ERR_method_decl_in_body, 3150),
     (sym_extern_pragma, 7490), (sym_wasm_pragma, 3150), (sym_warn_pragma, 7490),
     (sym_allow_pragma, 3140), (sym_test_pragma, 7490), (sym_once_pragma, 7490),
     (sym_must_call_pragma, 7490), (sym_export_pragma, 7490), (sym_pou_pragma, 7194),
     (sym_direct_variable, 7675), (sym_deref_expression, 2373), (sym_variable, 7599),
     (sym_var_access, 2373), (sym_in_out_decls, 3160), (sym_var_decls, 3160),
     (sym_retain_var_decls, 3160), (sym_temp_var_decls, 3160), (sym_external_var_decls, 3160),
     (sym_global_var_decls, 2947), (sym_loc_partly_var_decl, 3160), (sym__fb_variables, 2343),
     (sym_fb_input_decls, 3160), (sym_fb_output_decls, 3160), (sym_no_retain_var_decls, 3160),
     (sym_fb_body, 9507), (sym_method_decl, 2549), (sym_prog_access_decls, 3043), (sym_SFC, 7970),
     (sym_SFC_network, 7612), (sym_initial_step, 7439), (sym_config_init, 3047),
     (sym_variable_access, 7530), (sym_func_call, 2961), (sym_stmt_list, 7970), (sym__stmt, 2024),
     (sym_assign, 3150), (sym_if_stmt, 3150), (sym_case_stmt, 3150), (sym_for_stmt, 3150),
     (sym_while_stmt, 3150), (sym_repeat_stmt, 3150), (sym_raise_stmt, 3150), (sym_try_stmt, 3150),
     (sym_ERR_clause_outside_try, 3150), (sym_begin_path_expression, 2943), (sym_invocation, 2934),
     (sym_any_invocation, 2935), (sym_this_invocation, 2641), (sym_super_invocation, 2641),
     (sym_super_body_invocation, 2935), (sym_path_expression, 2627), (sym_field_expression, 2373),
     (sym_index_expression, 2373), (sym_ladder_diagram, 7970), (sym_fb_diagram, 7970),
     (aux_sym_ERR_fb_variables_after_method_repeat1, 2343), (aux_sym_func_decl_repeat1, 7194),
     (aux_sym_fb_decl_repeat3, 2549), (aux_sym_SFC_repeat1, 7612),
     (aux_sym_stmt_list_repeat1, 2024), (aux_sym_ladder_diagram_repeat1, 8009),
     (aux_sym_fb_diagram_repeat1, 8013), (sym_identifier, 298),
     (aux_sym_ERR_unexpected_this_in_path_token1, 304),
     (aux_sym_ERR_unexpected_super_in_path_token1, 306), (sym_line_comment, 3),
     (anon_sym_LBRACE, 308), (aux_sym_test_pragma_token1, 9), (aux_sym_once_pragma_token1, 11),
     (aux_sym_must_call_pragma_token1, 13), (aux_sym_export_pragma_token1, 15),
     (anon_sym_SEMI, 310), (anon_sym_PERCENT, 312), (aux_sym_input_decls_token1, 314),
     (aux_sym_output_decls_token1, 316), (aux_sym_in_out_decls_token1, 318),
     (aux_sym_var_decls_token1, 320), (aux_sym_temp_var_decls_token1, 322),
     (aux_sym_external_var_decls_token1, 324), (aux_sym_global_var_decls_token1, 326),
     (aux_sym_fb_decl_token4, 1356), (aux_sym_method_decl_token1, 330),
     (aux_sym_prog_access_decls_token1, 332), (aux_sym_initial_step_token1, 334),
     (aux_sym_config_init_token1, 336), (aux_sym__stmt_token1, 340), (aux_sym__stmt_token2, 340),
     (aux_sym__stmt_token3, 340), (aux_sym_if_stmt_token1, 342), (aux_sym_case_stmt_token1, 344),
     (aux_sym_for_stmt_token1, 346), (aux_sym_while_stmt_token1, 348),
     (aux_sym_repeat_stmt_token1, 350), (aux_sym_raise_stmt_token1, 352),
     (aux_sym_try_stmt_token1, 354), (aux_sym_try_stmt_token2, 356),
     (aux_sym_catch_clause_token1, 356), (aux_sym_finally_clause_token1, 356), (sym_ld_rung, 358),
     (sym_fbd_network, 360), (sym_c_style_comment, 3), (sym_pascal_style_comment, 3),
     (sym_pragma, 3)]"

lemma ts_parse_row_513_scan: "row_scan tokens_63_2 0 ts_parse_row_513 = Some (Suc (Suc (Suc (Suc 0))))"
  unfolding ts_parse_row_513_def by simp

text \<open>Lines 113291 to 113403.\<close>

definition ts_parse_row_514 :: parse_row where
  "ts_parse_row_514 =
    [(sym_ERR_assign_func_call, 7530), (sym_ERR_unexpected_this_in_path, 2372),
     (sym_ERR_unexpected_super_in_path, 2372), (sym_ERR_fb_variables_after_method, 1427),
     (sym_ERR_var_access_not_allowed, 3160), (sym_ERR_var_config_not_allowed, 3160),
     (sym_ERR_var_global_not_allowed, 3160), (sym_ERR_method_decl_in_body, 3150),
     (sym_extern_pragma, 7490), (sym_wasm_pragma, 3150), (sym_warn_pragma, 7490),
     (sym_allow_pragma, 3140), (sym_test_pragma, 7490), (sym_once_pragma, 7490),
     (sym_must_call_pragma, 7490), (sym_export_pragma, 7490), (sym_pou_pragma, 7194),
     (sym_direct_variable, 7675), (sym_deref_expression, 2373), (sym_variable, 7599),
     (sym_var_access, 2373), (sym_in_out_decls, 3160), (sym_var_decls, 3160),
     (sym_retain_var_decls, 3160), (sym_temp_var_decls, 3160), (sym_external_var_decls, 3160),
     (sym_global_var_decls, 2947), (sym_loc_partly_var_decl, 3160), (sym__fb_variables, 2343),
     (sym_fb_input_decls, 3160), (sym_fb_output_decls, 3160), (sym_no_retain_var_decls, 3160),
     (sym_fb_body, 9625), (sym_method_decl, 2549), (sym_prog_access_decls, 3043), (sym_SFC, 7970),
     (sym_SFC_network, 7612), (sym_initial_step, 7439), (sym_config_init, 3047),
     (sym_variable_access, 7530), (sym_func_call, 2961), (sym_stmt_list, 7970), (sym__stmt, 2024),
     (sym_assign, 3150), (sym_if_stmt, 3150), (sym_case_stmt, 3150), (sym_for_stmt, 3150),
     (sym_while_stmt, 3150), (sym_repeat_stmt, 3150), (sym_raise_stmt, 3150), (sym_try_stmt, 3150),
     (sym_ERR_clause_outside_try, 3150), (sym_begin_path_expression, 2943), (sym_invocation, 2934),
     (sym_any_invocation, 2935), (sym_this_invocation, 2641), (sym_super_invocation, 2641),
     (sym_super_body_invocation, 2935), (sym_path_expression, 2627), (sym_field_expression, 2373),
     (sym_index_expression, 2373), (sym_ladder_diagram, 7970), (sym_fb_diagram, 7970),
     (aux_sym_ERR_fb_variables_after_method_repeat1, 2343), (aux_sym_func_decl_repeat1, 7194),
     (aux_sym_fb_decl_repeat3, 2549), (aux_sym_SFC_repeat1, 7612),
     (aux_sym_stmt_list_repeat1, 2024), (aux_sym_ladder_diagram_repeat1, 8009),
     (aux_sym_fb_diagram_repeat1, 8013), (sym_identifier, 298),
     (aux_sym_ERR_unexpected_this_in_path_token1, 304),
     (aux_sym_ERR_unexpected_super_in_path_token1, 306), (sym_line_comment, 3),
     (anon_sym_LBRACE, 308), (aux_sym_test_pragma_token1, 9), (aux_sym_once_pragma_token1, 11),
     (aux_sym_must_call_pragma_token1, 13), (aux_sym_export_pragma_token1, 15),
     (anon_sym_SEMI, 310), (anon_sym_PERCENT, 312), (aux_sym_input_decls_token1, 314),
     (aux_sym_output_decls_token1, 316), (aux_sym_in_out_decls_token1, 318),
     (aux_sym_var_decls_token1, 320), (aux_sym_temp_var_decls_token1, 322),
     (aux_sym_external_var_decls_token1, 324), (aux_sym_global_var_decls_token1, 326),
     (aux_sym_fb_decl_token4, 1358), (aux_sym_method_decl_token1, 330),
     (aux_sym_prog_access_decls_token1, 332), (aux_sym_initial_step_token1, 334),
     (aux_sym_config_init_token1, 336), (aux_sym__stmt_token1, 340), (aux_sym__stmt_token2, 340),
     (aux_sym__stmt_token3, 340), (aux_sym_if_stmt_token1, 342), (aux_sym_case_stmt_token1, 344),
     (aux_sym_for_stmt_token1, 346), (aux_sym_while_stmt_token1, 348),
     (aux_sym_repeat_stmt_token1, 350), (aux_sym_raise_stmt_token1, 352),
     (aux_sym_try_stmt_token1, 354), (aux_sym_try_stmt_token2, 356),
     (aux_sym_catch_clause_token1, 356), (aux_sym_finally_clause_token1, 356), (sym_ld_rung, 358),
     (sym_fbd_network, 360), (sym_c_style_comment, 3), (sym_pascal_style_comment, 3),
     (sym_pragma, 3)]"

lemma ts_parse_row_514_scan: "row_scan tokens_63_2 0 ts_parse_row_514 = Some (Suc (Suc (Suc (Suc 0))))"
  unfolding ts_parse_row_514_def by simp

text \<open>Lines 113404 to 113516.\<close>

definition ts_parse_row_515 :: parse_row where
  "ts_parse_row_515 =
    [(sym_ERR_assign_func_call, 7530), (sym_ERR_unexpected_this_in_path, 2372),
     (sym_ERR_unexpected_super_in_path, 2372), (sym_ERR_fb_variables_after_method, 1428),
     (sym_ERR_var_access_not_allowed, 3160), (sym_ERR_var_config_not_allowed, 3160),
     (sym_ERR_var_global_not_allowed, 3160), (sym_ERR_method_decl_in_body, 3150),
     (sym_extern_pragma, 7490), (sym_wasm_pragma, 3150), (sym_warn_pragma, 7490),
     (sym_allow_pragma, 3140), (sym_test_pragma, 7490), (sym_once_pragma, 7490),
     (sym_must_call_pragma, 7490), (sym_export_pragma, 7490), (sym_pou_pragma, 7194),
     (sym_direct_variable, 7675), (sym_deref_expression, 2373), (sym_variable, 7599),
     (sym_var_access, 2373), (sym_in_out_decls, 3160), (sym_var_decls, 3160),
     (sym_retain_var_decls, 3160), (sym_temp_var_decls, 3160), (sym_external_var_decls, 3160),
     (sym_global_var_decls, 2947), (sym_loc_partly_var_decl, 3160), (sym__fb_variables, 2343),
     (sym_fb_input_decls, 3160), (sym_fb_output_decls, 3160), (sym_no_retain_var_decls, 3160),
     (sym_fb_body, 9680), (sym_method_decl, 2549), (sym_prog_access_decls, 3043), (sym_SFC, 7970),
     (sym_SFC_network, 7612), (sym_initial_step, 7439), (sym_config_init, 3047),
     (sym_variable_access, 7530), (sym_func_call, 2961), (sym_stmt_list, 7970), (sym__stmt, 2024),
     (sym_assign, 3150), (sym_if_stmt, 3150), (sym_case_stmt, 3150), (sym_for_stmt, 3150),
     (sym_while_stmt, 3150), (sym_repeat_stmt, 3150), (sym_raise_stmt, 3150), (sym_try_stmt, 3150),
     (sym_ERR_clause_outside_try, 3150), (sym_begin_path_expression, 2943), (sym_invocation, 2934),
     (sym_any_invocation, 2935), (sym_this_invocation, 2641), (sym_super_invocation, 2641),
     (sym_super_body_invocation, 2935), (sym_path_expression, 2627), (sym_field_expression, 2373),
     (sym_index_expression, 2373), (sym_ladder_diagram, 7970), (sym_fb_diagram, 7970),
     (aux_sym_ERR_fb_variables_after_method_repeat1, 2343), (aux_sym_func_decl_repeat1, 7194),
     (aux_sym_fb_decl_repeat3, 2549), (aux_sym_SFC_repeat1, 7612),
     (aux_sym_stmt_list_repeat1, 2024), (aux_sym_ladder_diagram_repeat1, 8009),
     (aux_sym_fb_diagram_repeat1, 8013), (sym_identifier, 298),
     (aux_sym_ERR_unexpected_this_in_path_token1, 304),
     (aux_sym_ERR_unexpected_super_in_path_token1, 306), (sym_line_comment, 3),
     (anon_sym_LBRACE, 308), (aux_sym_test_pragma_token1, 9), (aux_sym_once_pragma_token1, 11),
     (aux_sym_must_call_pragma_token1, 13), (aux_sym_export_pragma_token1, 15),
     (anon_sym_SEMI, 310), (anon_sym_PERCENT, 312), (aux_sym_input_decls_token1, 314),
     (aux_sym_output_decls_token1, 316), (aux_sym_in_out_decls_token1, 318),
     (aux_sym_var_decls_token1, 320), (aux_sym_temp_var_decls_token1, 322),
     (aux_sym_external_var_decls_token1, 324), (aux_sym_global_var_decls_token1, 326),
     (aux_sym_fb_decl_token4, 1360), (aux_sym_method_decl_token1, 330),
     (aux_sym_prog_access_decls_token1, 332), (aux_sym_initial_step_token1, 334),
     (aux_sym_config_init_token1, 336), (aux_sym__stmt_token1, 340), (aux_sym__stmt_token2, 340),
     (aux_sym__stmt_token3, 340), (aux_sym_if_stmt_token1, 342), (aux_sym_case_stmt_token1, 344),
     (aux_sym_for_stmt_token1, 346), (aux_sym_while_stmt_token1, 348),
     (aux_sym_repeat_stmt_token1, 350), (aux_sym_raise_stmt_token1, 352),
     (aux_sym_try_stmt_token1, 354), (aux_sym_try_stmt_token2, 356),
     (aux_sym_catch_clause_token1, 356), (aux_sym_finally_clause_token1, 356), (sym_ld_rung, 358),
     (sym_fbd_network, 360), (sym_c_style_comment, 3), (sym_pascal_style_comment, 3),
     (sym_pragma, 3)]"

lemma ts_parse_row_515_scan: "row_scan tokens_63_2 0 ts_parse_row_515 = Some (Suc (Suc (Suc (Suc 0))))"
  unfolding ts_parse_row_515_def by simp

text \<open>Lines 113517 to 113629.\<close>

definition ts_parse_row_516 :: parse_row where
  "ts_parse_row_516 =
    [(sym_ERR_assign_func_call, 7530), (sym_ERR_unexpected_this_in_path, 2372),
     (sym_ERR_unexpected_super_in_path, 2372), (sym_ERR_fb_variables_after_method, 1429),
     (sym_ERR_var_access_not_allowed, 3160), (sym_ERR_var_config_not_allowed, 3160),
     (sym_ERR_var_global_not_allowed, 3160), (sym_ERR_method_decl_in_body, 3150),
     (sym_extern_pragma, 7490), (sym_wasm_pragma, 3150), (sym_warn_pragma, 7490),
     (sym_allow_pragma, 3140), (sym_test_pragma, 7490), (sym_once_pragma, 7490),
     (sym_must_call_pragma, 7490), (sym_export_pragma, 7490), (sym_pou_pragma, 7194),
     (sym_direct_variable, 7675), (sym_deref_expression, 2373), (sym_variable, 7599),
     (sym_var_access, 2373), (sym_in_out_decls, 3160), (sym_var_decls, 3160),
     (sym_retain_var_decls, 3160), (sym_temp_var_decls, 3160), (sym_external_var_decls, 3160),
     (sym_global_var_decls, 2947), (sym_loc_partly_var_decl, 3160), (sym__fb_variables, 2343),
     (sym_fb_input_decls, 3160), (sym_fb_output_decls, 3160), (sym_no_retain_var_decls, 3160),
     (sym_fb_body, 9785), (sym_method_decl, 2549), (sym_prog_access_decls, 3043), (sym_SFC, 7970),
     (sym_SFC_network, 7612), (sym_initial_step, 7439), (sym_config_init, 3047),
     (sym_variable_access, 7530), (sym_func_call, 2961), (sym_stmt_list, 7970), (sym__stmt, 2024),
     (sym_assign, 3150), (sym_if_stmt, 3150), (sym_case_stmt, 3150), (sym_for_stmt, 3150),
     (sym_while_stmt, 3150), (sym_repeat_stmt, 3150), (sym_raise_stmt, 3150), (sym_try_stmt, 3150),
     (sym_ERR_clause_outside_try, 3150), (sym_begin_path_expression, 2943), (sym_invocation, 2934),
     (sym_any_invocation, 2935), (sym_this_invocation, 2641), (sym_super_invocation, 2641),
     (sym_super_body_invocation, 2935), (sym_path_expression, 2627), (sym_field_expression, 2373),
     (sym_index_expression, 2373), (sym_ladder_diagram, 7970), (sym_fb_diagram, 7970),
     (aux_sym_ERR_fb_variables_after_method_repeat1, 2343), (aux_sym_func_decl_repeat1, 7194),
     (aux_sym_fb_decl_repeat3, 2549), (aux_sym_SFC_repeat1, 7612),
     (aux_sym_stmt_list_repeat1, 2024), (aux_sym_ladder_diagram_repeat1, 8009),
     (aux_sym_fb_diagram_repeat1, 8013), (sym_identifier, 298),
     (aux_sym_ERR_unexpected_this_in_path_token1, 304),
     (aux_sym_ERR_unexpected_super_in_path_token1, 306), (sym_line_comment, 3),
     (anon_sym_LBRACE, 308), (aux_sym_test_pragma_token1, 9), (aux_sym_once_pragma_token1, 11),
     (aux_sym_must_call_pragma_token1, 13), (aux_sym_export_pragma_token1, 15),
     (anon_sym_SEMI, 310), (anon_sym_PERCENT, 312), (aux_sym_input_decls_token1, 314),
     (aux_sym_output_decls_token1, 316), (aux_sym_in_out_decls_token1, 318),
     (aux_sym_var_decls_token1, 320), (aux_sym_temp_var_decls_token1, 322),
     (aux_sym_external_var_decls_token1, 324), (aux_sym_global_var_decls_token1, 326),
     (aux_sym_fb_decl_token4, 1362), (aux_sym_method_decl_token1, 330),
     (aux_sym_prog_access_decls_token1, 332), (aux_sym_initial_step_token1, 334),
     (aux_sym_config_init_token1, 336), (aux_sym__stmt_token1, 340), (aux_sym__stmt_token2, 340),
     (aux_sym__stmt_token3, 340), (aux_sym_if_stmt_token1, 342), (aux_sym_case_stmt_token1, 344),
     (aux_sym_for_stmt_token1, 346), (aux_sym_while_stmt_token1, 348),
     (aux_sym_repeat_stmt_token1, 350), (aux_sym_raise_stmt_token1, 352),
     (aux_sym_try_stmt_token1, 354), (aux_sym_try_stmt_token2, 356),
     (aux_sym_catch_clause_token1, 356), (aux_sym_finally_clause_token1, 356), (sym_ld_rung, 358),
     (sym_fbd_network, 360), (sym_c_style_comment, 3), (sym_pascal_style_comment, 3),
     (sym_pragma, 3)]"

lemma ts_parse_row_516_scan: "row_scan tokens_63_2 0 ts_parse_row_516 = Some (Suc (Suc (Suc (Suc 0))))"
  unfolding ts_parse_row_516_def by simp

text \<open>Lines 113630 to 113742.\<close>

definition ts_parse_row_517 :: parse_row where
  "ts_parse_row_517 =
    [(sym_ERR_assign_func_call, 7530), (sym_ERR_unexpected_this_in_path, 2372),
     (sym_ERR_unexpected_super_in_path, 2372), (sym_ERR_fb_variables_after_method, 1430),
     (sym_ERR_var_access_not_allowed, 3160), (sym_ERR_var_config_not_allowed, 3160),
     (sym_ERR_var_global_not_allowed, 3160), (sym_ERR_method_decl_in_body, 3150),
     (sym_extern_pragma, 7490), (sym_wasm_pragma, 3150), (sym_warn_pragma, 7490),
     (sym_allow_pragma, 3140), (sym_test_pragma, 7490), (sym_once_pragma, 7490),
     (sym_must_call_pragma, 7490), (sym_export_pragma, 7490), (sym_pou_pragma, 7194),
     (sym_direct_variable, 7675), (sym_deref_expression, 2373), (sym_variable, 7599),
     (sym_var_access, 2373), (sym_in_out_decls, 3160), (sym_var_decls, 3160),
     (sym_retain_var_decls, 3160), (sym_temp_var_decls, 3160), (sym_external_var_decls, 3160),
     (sym_global_var_decls, 2947), (sym_loc_partly_var_decl, 3160), (sym__fb_variables, 2343),
     (sym_fb_input_decls, 3160), (sym_fb_output_decls, 3160), (sym_no_retain_var_decls, 3160),
     (sym_fb_body, 9816), (sym_method_decl, 2549), (sym_prog_access_decls, 3043), (sym_SFC, 7970),
     (sym_SFC_network, 7612), (sym_initial_step, 7439), (sym_config_init, 3047),
     (sym_variable_access, 7530), (sym_func_call, 2961), (sym_stmt_list, 7970), (sym__stmt, 2024),
     (sym_assign, 3150), (sym_if_stmt, 3150), (sym_case_stmt, 3150), (sym_for_stmt, 3150),
     (sym_while_stmt, 3150), (sym_repeat_stmt, 3150), (sym_raise_stmt, 3150), (sym_try_stmt, 3150),
     (sym_ERR_clause_outside_try, 3150), (sym_begin_path_expression, 2943), (sym_invocation, 2934),
     (sym_any_invocation, 2935), (sym_this_invocation, 2641), (sym_super_invocation, 2641),
     (sym_super_body_invocation, 2935), (sym_path_expression, 2627), (sym_field_expression, 2373),
     (sym_index_expression, 2373), (sym_ladder_diagram, 7970), (sym_fb_diagram, 7970),
     (aux_sym_ERR_fb_variables_after_method_repeat1, 2343), (aux_sym_func_decl_repeat1, 7194),
     (aux_sym_fb_decl_repeat3, 2549), (aux_sym_SFC_repeat1, 7612),
     (aux_sym_stmt_list_repeat1, 2024), (aux_sym_ladder_diagram_repeat1, 8009),
     (aux_sym_fb_diagram_repeat1, 8013), (sym_identifier, 298),
     (aux_sym_ERR_unexpected_this_in_path_token1, 304),
     (aux_sym_ERR_unexpected_super_in_path_token1, 306), (sym_line_comment, 3),
     (anon_sym_LBRACE, 308), (aux_sym_test_pragma_token1, 9), (aux_sym_once_pragma_token1, 11),
     (aux_sym_must_call_pragma_token1, 13), (aux_sym_export_pragma_token1, 15),
     (anon_sym_SEMI, 310), (anon_sym_PERCENT, 312), (aux_sym_input_decls_token1, 314),
     (aux_sym_output_decls_token1, 316), (aux_sym_in_out_decls_token1, 318),
     (aux_sym_var_decls_token1, 320), (aux_sym_temp_var_decls_token1, 322),
     (aux_sym_external_var_decls_token1, 324), (aux_sym_global_var_decls_token1, 326),
     (aux_sym_fb_decl_token4, 1364), (aux_sym_method_decl_token1, 330),
     (aux_sym_prog_access_decls_token1, 332), (aux_sym_initial_step_token1, 334),
     (aux_sym_config_init_token1, 336), (aux_sym__stmt_token1, 340), (aux_sym__stmt_token2, 340),
     (aux_sym__stmt_token3, 340), (aux_sym_if_stmt_token1, 342), (aux_sym_case_stmt_token1, 344),
     (aux_sym_for_stmt_token1, 346), (aux_sym_while_stmt_token1, 348),
     (aux_sym_repeat_stmt_token1, 350), (aux_sym_raise_stmt_token1, 352),
     (aux_sym_try_stmt_token1, 354), (aux_sym_try_stmt_token2, 356),
     (aux_sym_catch_clause_token1, 356), (aux_sym_finally_clause_token1, 356), (sym_ld_rung, 358),
     (sym_fbd_network, 360), (sym_c_style_comment, 3), (sym_pascal_style_comment, 3),
     (sym_pragma, 3)]"

lemma ts_parse_row_517_scan: "row_scan tokens_63_2 0 ts_parse_row_517 = Some (Suc (Suc (Suc (Suc 0))))"
  unfolding ts_parse_row_517_def by simp

text \<open>Lines 113743 to 113855.\<close>

definition ts_parse_row_518 :: parse_row where
  "ts_parse_row_518 =
    [(sym_ERR_assign_func_call, 7530), (sym_ERR_unexpected_this_in_path, 2372),
     (sym_ERR_unexpected_super_in_path, 2372), (sym_ERR_fb_variables_after_method, 1431),
     (sym_ERR_var_access_not_allowed, 3160), (sym_ERR_var_config_not_allowed, 3160),
     (sym_ERR_var_global_not_allowed, 3160), (sym_ERR_method_decl_in_body, 3150),
     (sym_extern_pragma, 7490), (sym_wasm_pragma, 3150), (sym_warn_pragma, 7490),
     (sym_allow_pragma, 3140), (sym_test_pragma, 7490), (sym_once_pragma, 7490),
     (sym_must_call_pragma, 7490), (sym_export_pragma, 7490), (sym_pou_pragma, 7194),
     (sym_direct_variable, 7675), (sym_deref_expression, 2373), (sym_variable, 7599),
     (sym_var_access, 2373), (sym_in_out_decls, 3160), (sym_var_decls, 3160),
     (sym_retain_var_decls, 3160), (sym_temp_var_decls, 3160), (sym_external_var_decls, 3160),
     (sym_global_var_decls, 2947), (sym_loc_partly_var_decl, 3160), (sym__fb_variables, 2347),
     (sym_fb_input_decls, 3160), (sym_fb_output_decls, 3160), (sym_no_retain_var_decls, 3160),
     (sym_fb_body, 9838), (sym_method_decl, 653), (sym_prog_access_decls, 3043), (sym_SFC, 7970),
     (sym_SFC_network, 7612), (sym_initial_step, 7439), (sym_config_init, 3047),
     (sym_variable_access, 7530), (sym_func_call, 2961), (sym_stmt_list, 7970), (sym__stmt, 2024),
     (sym_assign, 3150), (sym_if_stmt, 3150), (sym_case_stmt, 3150), (sym_for_stmt, 3150),
     (sym_while_stmt, 3150), (sym_repeat_stmt, 3150), (sym_raise_stmt, 3150), (sym_try_stmt, 3150),
     (sym_ERR_clause_outside_try, 3150), (sym_begin_path_expression, 2943), (sym_invocation, 2934),
     (sym_any_invocation, 2935), (sym_this_invocation, 2641), (sym_super_invocation, 2641),
     (sym_super_body_invocation, 2935), (sym_path_expression, 2627), (sym_field_expression, 2373),
     (sym_index_expression, 2373), (sym_ladder_diagram, 7970), (sym_fb_diagram, 7970),
     (aux_sym_ERR_fb_variables_after_method_repeat1, 2347), (aux_sym_func_decl_repeat1, 7194),
     (aux_sym_fb_decl_repeat3, 653), (aux_sym_SFC_repeat1, 7612), (aux_sym_stmt_list_repeat1, 2024),
     (aux_sym_ladder_diagram_repeat1, 8009), (aux_sym_fb_diagram_repeat1, 8013),
     (sym_identifier, 298), (aux_sym_ERR_unexpected_this_in_path_token1, 304),
     (aux_sym_ERR_unexpected_super_in_path_token1, 306), (sym_line_comment, 3),
     (anon_sym_LBRACE, 308), (aux_sym_test_pragma_token1, 9), (aux_sym_once_pragma_token1, 11),
     (aux_sym_must_call_pragma_token1, 13), (aux_sym_export_pragma_token1, 15),
     (anon_sym_SEMI, 310), (anon_sym_PERCENT, 312), (aux_sym_input_decls_token1, 314),
     (aux_sym_output_decls_token1, 316), (aux_sym_in_out_decls_token1, 318),
     (aux_sym_var_decls_token1, 320), (aux_sym_temp_var_decls_token1, 322),
     (aux_sym_external_var_decls_token1, 324), (aux_sym_global_var_decls_token1, 326),
     (aux_sym_fb_decl_token4, 1366), (aux_sym_method_decl_token1, 330),
     (aux_sym_prog_access_decls_token1, 332), (aux_sym_initial_step_token1, 334),
     (aux_sym_config_init_token1, 336), (aux_sym__stmt_token1, 340), (aux_sym__stmt_token2, 340),
     (aux_sym__stmt_token3, 340), (aux_sym_if_stmt_token1, 342), (aux_sym_case_stmt_token1, 344),
     (aux_sym_for_stmt_token1, 346), (aux_sym_while_stmt_token1, 348),
     (aux_sym_repeat_stmt_token1, 350), (aux_sym_raise_stmt_token1, 352),
     (aux_sym_try_stmt_token1, 354), (aux_sym_try_stmt_token2, 356),
     (aux_sym_catch_clause_token1, 356), (aux_sym_finally_clause_token1, 356), (sym_ld_rung, 358),
     (sym_fbd_network, 360), (sym_c_style_comment, 3), (sym_pascal_style_comment, 3),
     (sym_pragma, 3)]"

lemma ts_parse_row_518_scan: "row_scan tokens_63_2 0 ts_parse_row_518 = Some (Suc (Suc (Suc (Suc 0))))"
  unfolding ts_parse_row_518_def by simp

text \<open>Lines 113856 to 113968.\<close>

definition ts_parse_row_519 :: parse_row where
  "ts_parse_row_519 =
    [(sym_ERR_assign_func_call, 7530), (sym_ERR_unexpected_this_in_path, 2372),
     (sym_ERR_unexpected_super_in_path, 2372), (sym_ERR_fb_variables_after_method, 1432),
     (sym_ERR_var_access_not_allowed, 3160), (sym_ERR_var_config_not_allowed, 3160),
     (sym_ERR_var_global_not_allowed, 3160), (sym_ERR_method_decl_in_body, 3150),
     (sym_extern_pragma, 7490), (sym_wasm_pragma, 3150), (sym_warn_pragma, 7490),
     (sym_allow_pragma, 3140), (sym_test_pragma, 7490), (sym_once_pragma, 7490),
     (sym_must_call_pragma, 7490), (sym_export_pragma, 7490), (sym_pou_pragma, 7194),
     (sym_direct_variable, 7675), (sym_deref_expression, 2373), (sym_variable, 7599),
     (sym_var_access, 2373), (sym_in_out_decls, 3160), (sym_var_decls, 3160),
     (sym_retain_var_decls, 3160), (sym_temp_var_decls, 3160), (sym_external_var_decls, 3160),
     (sym_global_var_decls, 2947), (sym_loc_partly_var_decl, 3160), (sym__fb_variables, 2343),
     (sym_fb_input_decls, 3160), (sym_fb_output_decls, 3160), (sym_no_retain_var_decls, 3160),
     (sym_fb_body, 9842), (sym_method_decl, 2549), (sym_prog_access_decls, 3043), (sym_SFC, 7970),
     (sym_SFC_network, 7612), (sym_initial_step, 7439), (sym_config_init, 3047),
     (sym_variable_access, 7530), (sym_func_call, 2961), (sym_stmt_list, 7970), (sym__stmt, 2024),
     (sym_assign, 3150), (sym_if_stmt, 3150), (sym_case_stmt, 3150), (sym_for_stmt, 3150),
     (sym_while_stmt, 3150), (sym_repeat_stmt, 3150), (sym_raise_stmt, 3150), (sym_try_stmt, 3150),
     (sym_ERR_clause_outside_try, 3150), (sym_begin_path_expression, 2943), (sym_invocation, 2934),
     (sym_any_invocation, 2935), (sym_this_invocation, 2641), (sym_super_invocation, 2641),
     (sym_super_body_invocation, 2935), (sym_path_expression, 2627), (sym_field_expression, 2373),
     (sym_index_expression, 2373), (sym_ladder_diagram, 7970), (sym_fb_diagram, 7970),
     (aux_sym_ERR_fb_variables_after_method_repeat1, 2343), (aux_sym_func_decl_repeat1, 7194),
     (aux_sym_fb_decl_repeat3, 2549), (aux_sym_SFC_repeat1, 7612),
     (aux_sym_stmt_list_repeat1, 2024), (aux_sym_ladder_diagram_repeat1, 8009),
     (aux_sym_fb_diagram_repeat1, 8013), (sym_identifier, 298),
     (aux_sym_ERR_unexpected_this_in_path_token1, 304),
     (aux_sym_ERR_unexpected_super_in_path_token1, 306), (sym_line_comment, 3),
     (anon_sym_LBRACE, 308), (aux_sym_test_pragma_token1, 9), (aux_sym_once_pragma_token1, 11),
     (aux_sym_must_call_pragma_token1, 13), (aux_sym_export_pragma_token1, 15),
     (anon_sym_SEMI, 310), (anon_sym_PERCENT, 312), (aux_sym_input_decls_token1, 314),
     (aux_sym_output_decls_token1, 316), (aux_sym_in_out_decls_token1, 318),
     (aux_sym_var_decls_token1, 320), (aux_sym_temp_var_decls_token1, 322),
     (aux_sym_external_var_decls_token1, 324), (aux_sym_global_var_decls_token1, 326),
     (aux_sym_fb_decl_token4, 1368), (aux_sym_method_decl_token1, 330),
     (aux_sym_prog_access_decls_token1, 332), (aux_sym_initial_step_token1, 334),
     (aux_sym_config_init_token1, 336), (aux_sym__stmt_token1, 340), (aux_sym__stmt_token2, 340),
     (aux_sym__stmt_token3, 340), (aux_sym_if_stmt_token1, 342), (aux_sym_case_stmt_token1, 344),
     (aux_sym_for_stmt_token1, 346), (aux_sym_while_stmt_token1, 348),
     (aux_sym_repeat_stmt_token1, 350), (aux_sym_raise_stmt_token1, 352),
     (aux_sym_try_stmt_token1, 354), (aux_sym_try_stmt_token2, 356),
     (aux_sym_catch_clause_token1, 356), (aux_sym_finally_clause_token1, 356), (sym_ld_rung, 358),
     (sym_fbd_network, 360), (sym_c_style_comment, 3), (sym_pascal_style_comment, 3),
     (sym_pragma, 3)]"

lemma ts_parse_row_519_scan: "row_scan tokens_63_2 0 ts_parse_row_519 = Some (Suc (Suc (Suc (Suc 0))))"
  unfolding ts_parse_row_519_def by simp

text \<open>Lines 113969 to 114081.\<close>

definition ts_parse_row_520 :: parse_row where
  "ts_parse_row_520 =
    [(sym_ERR_assign_func_call, 7530), (sym_ERR_unexpected_this_in_path, 2372),
     (sym_ERR_unexpected_super_in_path, 2372), (sym_ERR_fb_variables_after_method, 1433),
     (sym_ERR_var_access_not_allowed, 3160), (sym_ERR_var_config_not_allowed, 3160),
     (sym_ERR_var_global_not_allowed, 3160), (sym_ERR_method_decl_in_body, 3150),
     (sym_extern_pragma, 7490), (sym_wasm_pragma, 3150), (sym_warn_pragma, 7490),
     (sym_allow_pragma, 3140), (sym_test_pragma, 7490), (sym_once_pragma, 7490),
     (sym_must_call_pragma, 7490), (sym_export_pragma, 7490), (sym_pou_pragma, 7194),
     (sym_direct_variable, 7675), (sym_deref_expression, 2373), (sym_variable, 7599),
     (sym_var_access, 2373), (sym_in_out_decls, 3160), (sym_var_decls, 3160),
     (sym_retain_var_decls, 3160), (sym_temp_var_decls, 3160), (sym_external_var_decls, 3160),
     (sym_global_var_decls, 2947), (sym_loc_partly_var_decl, 3160), (sym__fb_variables, 2343),
     (sym_fb_input_decls, 3160), (sym_fb_output_decls, 3160), (sym_no_retain_var_decls, 3160),
     (sym_fb_body, 9865), (sym_method_decl, 2549), (sym_prog_access_decls, 3043), (sym_SFC, 7970),
     (sym_SFC_network, 7612), (sym_initial_step, 7439), (sym_config_init, 3047),
     (sym_variable_access, 7530), (sym_func_call, 2961), (sym_stmt_list, 7970), (sym__stmt, 2024),
     (sym_assign, 3150), (sym_if_stmt, 3150), (sym_case_stmt, 3150), (sym_for_stmt, 3150),
     (sym_while_stmt, 3150), (sym_repeat_stmt, 3150), (sym_raise_stmt, 3150), (sym_try_stmt, 3150),
     (sym_ERR_clause_outside_try, 3150), (sym_begin_path_expression, 2943), (sym_invocation, 2934),
     (sym_any_invocation, 2935), (sym_this_invocation, 2641), (sym_super_invocation, 2641),
     (sym_super_body_invocation, 2935), (sym_path_expression, 2627), (sym_field_expression, 2373),
     (sym_index_expression, 2373), (sym_ladder_diagram, 7970), (sym_fb_diagram, 7970),
     (aux_sym_ERR_fb_variables_after_method_repeat1, 2343), (aux_sym_func_decl_repeat1, 7194),
     (aux_sym_fb_decl_repeat3, 2549), (aux_sym_SFC_repeat1, 7612),
     (aux_sym_stmt_list_repeat1, 2024), (aux_sym_ladder_diagram_repeat1, 8009),
     (aux_sym_fb_diagram_repeat1, 8013), (sym_identifier, 298),
     (aux_sym_ERR_unexpected_this_in_path_token1, 304),
     (aux_sym_ERR_unexpected_super_in_path_token1, 306), (sym_line_comment, 3),
     (anon_sym_LBRACE, 308), (aux_sym_test_pragma_token1, 9), (aux_sym_once_pragma_token1, 11),
     (aux_sym_must_call_pragma_token1, 13), (aux_sym_export_pragma_token1, 15),
     (anon_sym_SEMI, 310), (anon_sym_PERCENT, 312), (aux_sym_input_decls_token1, 314),
     (aux_sym_output_decls_token1, 316), (aux_sym_in_out_decls_token1, 318),
     (aux_sym_var_decls_token1, 320), (aux_sym_temp_var_decls_token1, 322),
     (aux_sym_external_var_decls_token1, 324), (aux_sym_global_var_decls_token1, 326),
     (aux_sym_fb_decl_token4, 1370), (aux_sym_method_decl_token1, 330),
     (aux_sym_prog_access_decls_token1, 332), (aux_sym_initial_step_token1, 334),
     (aux_sym_config_init_token1, 336), (aux_sym__stmt_token1, 340), (aux_sym__stmt_token2, 340),
     (aux_sym__stmt_token3, 340), (aux_sym_if_stmt_token1, 342), (aux_sym_case_stmt_token1, 344),
     (aux_sym_for_stmt_token1, 346), (aux_sym_while_stmt_token1, 348),
     (aux_sym_repeat_stmt_token1, 350), (aux_sym_raise_stmt_token1, 352),
     (aux_sym_try_stmt_token1, 354), (aux_sym_try_stmt_token2, 356),
     (aux_sym_catch_clause_token1, 356), (aux_sym_finally_clause_token1, 356), (sym_ld_rung, 358),
     (sym_fbd_network, 360), (sym_c_style_comment, 3), (sym_pascal_style_comment, 3),
     (sym_pragma, 3)]"

lemma ts_parse_row_520_scan: "row_scan tokens_63_2 0 ts_parse_row_520 = Some (Suc (Suc (Suc (Suc 0))))"
  unfolding ts_parse_row_520_def by simp

text \<open>Lines 114082 to 114194.\<close>

definition ts_parse_row_521 :: parse_row where
  "ts_parse_row_521 =
    [(sym_ERR_assign_func_call, 7530), (sym_ERR_unexpected_this_in_path, 2372),
     (sym_ERR_unexpected_super_in_path, 2372), (sym_ERR_fb_variables_after_method, 1434),
     (sym_ERR_var_access_not_allowed, 3160), (sym_ERR_var_config_not_allowed, 3160),
     (sym_ERR_var_global_not_allowed, 3160), (sym_ERR_method_decl_in_body, 3150),
     (sym_extern_pragma, 7490), (sym_wasm_pragma, 3150), (sym_warn_pragma, 7490),
     (sym_allow_pragma, 3140), (sym_test_pragma, 7490), (sym_once_pragma, 7490),
     (sym_must_call_pragma, 7490), (sym_export_pragma, 7490), (sym_pou_pragma, 7194),
     (sym_direct_variable, 7675), (sym_deref_expression, 2373), (sym_variable, 7599),
     (sym_var_access, 2373), (sym_in_out_decls, 3160), (sym_var_decls, 3160),
     (sym_retain_var_decls, 3160), (sym_temp_var_decls, 3160), (sym_external_var_decls, 3160),
     (sym_global_var_decls, 2947), (sym_loc_partly_var_decl, 3160), (sym__fb_variables, 2347),
     (sym_fb_input_decls, 3160), (sym_fb_output_decls, 3160), (sym_no_retain_var_decls, 3160),
     (sym_fb_body, 9872), (sym_method_decl, 654), (sym_prog_access_decls, 3043), (sym_SFC, 7970),
     (sym_SFC_network, 7612), (sym_initial_step, 7439), (sym_config_init, 3047),
     (sym_variable_access, 7530), (sym_func_call, 2961), (sym_stmt_list, 7970), (sym__stmt, 2024),
     (sym_assign, 3150), (sym_if_stmt, 3150), (sym_case_stmt, 3150), (sym_for_stmt, 3150),
     (sym_while_stmt, 3150), (sym_repeat_stmt, 3150), (sym_raise_stmt, 3150), (sym_try_stmt, 3150),
     (sym_ERR_clause_outside_try, 3150), (sym_begin_path_expression, 2943), (sym_invocation, 2934),
     (sym_any_invocation, 2935), (sym_this_invocation, 2641), (sym_super_invocation, 2641),
     (sym_super_body_invocation, 2935), (sym_path_expression, 2627), (sym_field_expression, 2373),
     (sym_index_expression, 2373), (sym_ladder_diagram, 7970), (sym_fb_diagram, 7970),
     (aux_sym_ERR_fb_variables_after_method_repeat1, 2347), (aux_sym_func_decl_repeat1, 7194),
     (aux_sym_fb_decl_repeat3, 654), (aux_sym_SFC_repeat1, 7612), (aux_sym_stmt_list_repeat1, 2024),
     (aux_sym_ladder_diagram_repeat1, 8009), (aux_sym_fb_diagram_repeat1, 8013),
     (sym_identifier, 298), (aux_sym_ERR_unexpected_this_in_path_token1, 304),
     (aux_sym_ERR_unexpected_super_in_path_token1, 306), (sym_line_comment, 3),
     (anon_sym_LBRACE, 308), (aux_sym_test_pragma_token1, 9), (aux_sym_once_pragma_token1, 11),
     (aux_sym_must_call_pragma_token1, 13), (aux_sym_export_pragma_token1, 15),
     (anon_sym_SEMI, 310), (anon_sym_PERCENT, 312), (aux_sym_input_decls_token1, 314),
     (aux_sym_output_decls_token1, 316), (aux_sym_in_out_decls_token1, 318),
     (aux_sym_var_decls_token1, 320), (aux_sym_temp_var_decls_token1, 322),
     (aux_sym_external_var_decls_token1, 324), (aux_sym_global_var_decls_token1, 326),
     (aux_sym_fb_decl_token4, 1372), (aux_sym_method_decl_token1, 330),
     (aux_sym_prog_access_decls_token1, 332), (aux_sym_initial_step_token1, 334),
     (aux_sym_config_init_token1, 336), (aux_sym__stmt_token1, 340), (aux_sym__stmt_token2, 340),
     (aux_sym__stmt_token3, 340), (aux_sym_if_stmt_token1, 342), (aux_sym_case_stmt_token1, 344),
     (aux_sym_for_stmt_token1, 346), (aux_sym_while_stmt_token1, 348),
     (aux_sym_repeat_stmt_token1, 350), (aux_sym_raise_stmt_token1, 352),
     (aux_sym_try_stmt_token1, 354), (aux_sym_try_stmt_token2, 356),
     (aux_sym_catch_clause_token1, 356), (aux_sym_finally_clause_token1, 356), (sym_ld_rung, 358),
     (sym_fbd_network, 360), (sym_c_style_comment, 3), (sym_pascal_style_comment, 3),
     (sym_pragma, 3)]"

lemma ts_parse_row_521_scan: "row_scan tokens_63_2 0 ts_parse_row_521 = Some (Suc (Suc (Suc (Suc 0))))"
  unfolding ts_parse_row_521_def by simp

text \<open>Lines 114195 to 114307.\<close>

definition ts_parse_row_522 :: parse_row where
  "ts_parse_row_522 =
    [(sym_ERR_assign_func_call, 7530), (sym_ERR_unexpected_this_in_path, 2372),
     (sym_ERR_unexpected_super_in_path, 2372), (sym_ERR_fb_variables_after_method, 1435),
     (sym_ERR_var_access_not_allowed, 3160), (sym_ERR_var_config_not_allowed, 3160),
     (sym_ERR_var_global_not_allowed, 3160), (sym_ERR_method_decl_in_body, 3150),
     (sym_extern_pragma, 7490), (sym_wasm_pragma, 3150), (sym_warn_pragma, 7490),
     (sym_allow_pragma, 3140), (sym_test_pragma, 7490), (sym_once_pragma, 7490),
     (sym_must_call_pragma, 7490), (sym_export_pragma, 7490), (sym_pou_pragma, 7194),
     (sym_direct_variable, 7675), (sym_deref_expression, 2373), (sym_variable, 7599),
     (sym_var_access, 2373), (sym_in_out_decls, 3160), (sym_var_decls, 3160),
     (sym_retain_var_decls, 3160), (sym_temp_var_decls, 3160), (sym_external_var_decls, 3160),
     (sym_global_var_decls, 2947), (sym_loc_partly_var_decl, 3160), (sym__fb_variables, 2343),
     (sym_fb_input_decls, 3160), (sym_fb_output_decls, 3160), (sym_no_retain_var_decls, 3160),
     (sym_fb_body, 9878), (sym_method_decl, 2549), (sym_prog_access_decls, 3043), (sym_SFC, 7970),
     (sym_SFC_network, 7612), (sym_initial_step, 7439), (sym_config_init, 3047),
     (sym_variable_access, 7530), (sym_func_call, 2961), (sym_stmt_list, 7970), (sym__stmt, 2024),
     (sym_assign, 3150), (sym_if_stmt, 3150), (sym_case_stmt, 3150), (sym_for_stmt, 3150),
     (sym_while_stmt, 3150), (sym_repeat_stmt, 3150), (sym_raise_stmt, 3150), (sym_try_stmt, 3150),
     (sym_ERR_clause_outside_try, 3150), (sym_begin_path_expression, 2943), (sym_invocation, 2934),
     (sym_any_invocation, 2935), (sym_this_invocation, 2641), (sym_super_invocation, 2641),
     (sym_super_body_invocation, 2935), (sym_path_expression, 2627), (sym_field_expression, 2373),
     (sym_index_expression, 2373), (sym_ladder_diagram, 7970), (sym_fb_diagram, 7970),
     (aux_sym_ERR_fb_variables_after_method_repeat1, 2343), (aux_sym_func_decl_repeat1, 7194),
     (aux_sym_fb_decl_repeat3, 2549), (aux_sym_SFC_repeat1, 7612),
     (aux_sym_stmt_list_repeat1, 2024), (aux_sym_ladder_diagram_repeat1, 8009),
     (aux_sym_fb_diagram_repeat1, 8013), (sym_identifier, 298),
     (aux_sym_ERR_unexpected_this_in_path_token1, 304),
     (aux_sym_ERR_unexpected_super_in_path_token1, 306), (sym_line_comment, 3),
     (anon_sym_LBRACE, 308), (aux_sym_test_pragma_token1, 9), (aux_sym_once_pragma_token1, 11),
     (aux_sym_must_call_pragma_token1, 13), (aux_sym_export_pragma_token1, 15),
     (anon_sym_SEMI, 310), (anon_sym_PERCENT, 312), (aux_sym_input_decls_token1, 314),
     (aux_sym_output_decls_token1, 316), (aux_sym_in_out_decls_token1, 318),
     (aux_sym_var_decls_token1, 320), (aux_sym_temp_var_decls_token1, 322),
     (aux_sym_external_var_decls_token1, 324), (aux_sym_global_var_decls_token1, 326),
     (aux_sym_fb_decl_token4, 1374), (aux_sym_method_decl_token1, 330),
     (aux_sym_prog_access_decls_token1, 332), (aux_sym_initial_step_token1, 334),
     (aux_sym_config_init_token1, 336), (aux_sym__stmt_token1, 340), (aux_sym__stmt_token2, 340),
     (aux_sym__stmt_token3, 340), (aux_sym_if_stmt_token1, 342), (aux_sym_case_stmt_token1, 344),
     (aux_sym_for_stmt_token1, 346), (aux_sym_while_stmt_token1, 348),
     (aux_sym_repeat_stmt_token1, 350), (aux_sym_raise_stmt_token1, 352),
     (aux_sym_try_stmt_token1, 354), (aux_sym_try_stmt_token2, 356),
     (aux_sym_catch_clause_token1, 356), (aux_sym_finally_clause_token1, 356), (sym_ld_rung, 358),
     (sym_fbd_network, 360), (sym_c_style_comment, 3), (sym_pascal_style_comment, 3),
     (sym_pragma, 3)]"

lemma ts_parse_row_522_scan: "row_scan tokens_63_2 0 ts_parse_row_522 = Some (Suc (Suc (Suc (Suc 0))))"
  unfolding ts_parse_row_522_def by simp

text \<open>Lines 114308 to 114420.\<close>

definition ts_parse_row_523 :: parse_row where
  "ts_parse_row_523 =
    [(sym_ERR_assign_func_call, 7530), (sym_ERR_unexpected_this_in_path, 2372),
     (sym_ERR_unexpected_super_in_path, 2372), (sym_ERR_fb_variables_after_method, 1436),
     (sym_ERR_var_access_not_allowed, 3160), (sym_ERR_var_config_not_allowed, 3160),
     (sym_ERR_var_global_not_allowed, 3160), (sym_ERR_method_decl_in_body, 3150),
     (sym_extern_pragma, 7490), (sym_wasm_pragma, 3150), (sym_warn_pragma, 7490),
     (sym_allow_pragma, 3140), (sym_test_pragma, 7490), (sym_once_pragma, 7490),
     (sym_must_call_pragma, 7490), (sym_export_pragma, 7490), (sym_pou_pragma, 7194),
     (sym_direct_variable, 7675), (sym_deref_expression, 2373), (sym_variable, 7599),
     (sym_var_access, 2373), (sym_in_out_decls, 3160), (sym_var_decls, 3160),
     (sym_retain_var_decls, 3160), (sym_temp_var_decls, 3160), (sym_external_var_decls, 3160),
     (sym_global_var_decls, 2947), (sym_loc_partly_var_decl, 3160), (sym__fb_variables, 2347),
     (sym_fb_input_decls, 3160), (sym_fb_output_decls, 3160), (sym_no_retain_var_decls, 3160),
     (sym_fb_body, 9885), (sym_method_decl, 655), (sym_prog_access_decls, 3043), (sym_SFC, 7970),
     (sym_SFC_network, 7612), (sym_initial_step, 7439), (sym_config_init, 3047),
     (sym_variable_access, 7530), (sym_func_call, 2961), (sym_stmt_list, 7970), (sym__stmt, 2024),
     (sym_assign, 3150), (sym_if_stmt, 3150), (sym_case_stmt, 3150), (sym_for_stmt, 3150),
     (sym_while_stmt, 3150), (sym_repeat_stmt, 3150), (sym_raise_stmt, 3150), (sym_try_stmt, 3150),
     (sym_ERR_clause_outside_try, 3150), (sym_begin_path_expression, 2943), (sym_invocation, 2934),
     (sym_any_invocation, 2935), (sym_this_invocation, 2641), (sym_super_invocation, 2641),
     (sym_super_body_invocation, 2935), (sym_path_expression, 2627), (sym_field_expression, 2373),
     (sym_index_expression, 2373), (sym_ladder_diagram, 7970), (sym_fb_diagram, 7970),
     (aux_sym_ERR_fb_variables_after_method_repeat1, 2347), (aux_sym_func_decl_repeat1, 7194),
     (aux_sym_fb_decl_repeat3, 655), (aux_sym_SFC_repeat1, 7612), (aux_sym_stmt_list_repeat1, 2024),
     (aux_sym_ladder_diagram_repeat1, 8009), (aux_sym_fb_diagram_repeat1, 8013),
     (sym_identifier, 298), (aux_sym_ERR_unexpected_this_in_path_token1, 304),
     (aux_sym_ERR_unexpected_super_in_path_token1, 306), (sym_line_comment, 3),
     (anon_sym_LBRACE, 308), (aux_sym_test_pragma_token1, 9), (aux_sym_once_pragma_token1, 11),
     (aux_sym_must_call_pragma_token1, 13), (aux_sym_export_pragma_token1, 15),
     (anon_sym_SEMI, 310), (anon_sym_PERCENT, 312), (aux_sym_input_decls_token1, 314),
     (aux_sym_output_decls_token1, 316), (aux_sym_in_out_decls_token1, 318),
     (aux_sym_var_decls_token1, 320), (aux_sym_temp_var_decls_token1, 322),
     (aux_sym_external_var_decls_token1, 324), (aux_sym_global_var_decls_token1, 326),
     (aux_sym_fb_decl_token4, 1376), (aux_sym_method_decl_token1, 330),
     (aux_sym_prog_access_decls_token1, 332), (aux_sym_initial_step_token1, 334),
     (aux_sym_config_init_token1, 336), (aux_sym__stmt_token1, 340), (aux_sym__stmt_token2, 340),
     (aux_sym__stmt_token3, 340), (aux_sym_if_stmt_token1, 342), (aux_sym_case_stmt_token1, 344),
     (aux_sym_for_stmt_token1, 346), (aux_sym_while_stmt_token1, 348),
     (aux_sym_repeat_stmt_token1, 350), (aux_sym_raise_stmt_token1, 352),
     (aux_sym_try_stmt_token1, 354), (aux_sym_try_stmt_token2, 356),
     (aux_sym_catch_clause_token1, 356), (aux_sym_finally_clause_token1, 356), (sym_ld_rung, 358),
     (sym_fbd_network, 360), (sym_c_style_comment, 3), (sym_pascal_style_comment, 3),
     (sym_pragma, 3)]"

lemma ts_parse_row_523_scan: "row_scan tokens_63_2 0 ts_parse_row_523 = Some (Suc (Suc (Suc (Suc 0))))"
  unfolding ts_parse_row_523_def by simp

text \<open>Lines 114421 to 114533.\<close>

definition ts_parse_row_524 :: parse_row where
  "ts_parse_row_524 =
    [(sym_ERR_assign_func_call, 7530), (sym_ERR_unexpected_this_in_path, 2372),
     (sym_ERR_unexpected_super_in_path, 2372), (sym_ERR_fb_variables_after_method, 1244),
     (sym_ERR_var_access_not_allowed, 3160), (sym_ERR_var_config_not_allowed, 3160),
     (sym_ERR_var_global_not_allowed, 3160), (sym_ERR_method_decl_in_body, 3150),
     (sym_extern_pragma, 7490), (sym_wasm_pragma, 3150), (sym_warn_pragma, 7490),
     (sym_allow_pragma, 3140), (sym_test_pragma, 7490), (sym_once_pragma, 7490),
     (sym_must_call_pragma, 7490), (sym_export_pragma, 7490), (sym_pou_pragma, 7194),
     (sym_direct_variable, 7675), (sym_deref_expression, 2373), (sym_variable, 7599),
     (sym_var_access, 2373), (sym_in_out_decls, 3160), (sym_var_decls, 3160),
     (sym_retain_var_decls, 3160), (sym_temp_var_decls, 3160), (sym_external_var_decls, 3160),
     (sym_global_var_decls, 2947), (sym_loc_partly_var_decl, 3160), (sym__fb_variables, 2343),
     (sym_fb_input_decls, 3160), (sym_fb_output_decls, 3160), (sym_no_retain_var_decls, 3160),
     (sym_fb_body, 9533), (sym_method_decl, 2549), (sym_prog_access_decls, 3043), (sym_SFC, 7970),
     (sym_SFC_network, 7612), (sym_initial_step, 7439), (sym_config_init, 3047),
     (sym_variable_access, 7530), (sym_func_call, 2961), (sym_stmt_list, 7970), (sym__stmt, 2024),
     (sym_assign, 3150), (sym_if_stmt, 3150), (sym_case_stmt, 3150), (sym_for_stmt, 3150),
     (sym_while_stmt, 3150), (sym_repeat_stmt, 3150), (sym_raise_stmt, 3150), (sym_try_stmt, 3150),
     (sym_ERR_clause_outside_try, 3150), (sym_begin_path_expression, 2943), (sym_invocation, 2934),
     (sym_any_invocation, 2935), (sym_this_invocation, 2641), (sym_super_invocation, 2641),
     (sym_super_body_invocation, 2935), (sym_path_expression, 2627), (sym_field_expression, 2373),
     (sym_index_expression, 2373), (sym_ladder_diagram, 7970), (sym_fb_diagram, 7970),
     (aux_sym_ERR_fb_variables_after_method_repeat1, 2343), (aux_sym_func_decl_repeat1, 7194),
     (aux_sym_fb_decl_repeat3, 2549), (aux_sym_SFC_repeat1, 7612),
     (aux_sym_stmt_list_repeat1, 2024), (aux_sym_ladder_diagram_repeat1, 8009),
     (aux_sym_fb_diagram_repeat1, 8013), (sym_identifier, 298),
     (aux_sym_ERR_unexpected_this_in_path_token1, 304),
     (aux_sym_ERR_unexpected_super_in_path_token1, 306), (sym_line_comment, 3),
     (anon_sym_LBRACE, 308), (aux_sym_test_pragma_token1, 9), (aux_sym_once_pragma_token1, 11),
     (aux_sym_must_call_pragma_token1, 13), (aux_sym_export_pragma_token1, 15),
     (anon_sym_SEMI, 310), (anon_sym_PERCENT, 312), (aux_sym_input_decls_token1, 314),
     (aux_sym_output_decls_token1, 316), (aux_sym_in_out_decls_token1, 318),
     (aux_sym_var_decls_token1, 320), (aux_sym_temp_var_decls_token1, 322),
     (aux_sym_external_var_decls_token1, 324), (aux_sym_global_var_decls_token1, 326),
     (aux_sym_fb_decl_token4, 1378), (aux_sym_method_decl_token1, 330),
     (aux_sym_prog_access_decls_token1, 332), (aux_sym_initial_step_token1, 334),
     (aux_sym_config_init_token1, 336), (aux_sym__stmt_token1, 340), (aux_sym__stmt_token2, 340),
     (aux_sym__stmt_token3, 340), (aux_sym_if_stmt_token1, 342), (aux_sym_case_stmt_token1, 344),
     (aux_sym_for_stmt_token1, 346), (aux_sym_while_stmt_token1, 348),
     (aux_sym_repeat_stmt_token1, 350), (aux_sym_raise_stmt_token1, 352),
     (aux_sym_try_stmt_token1, 354), (aux_sym_try_stmt_token2, 356),
     (aux_sym_catch_clause_token1, 356), (aux_sym_finally_clause_token1, 356), (sym_ld_rung, 358),
     (sym_fbd_network, 360), (sym_c_style_comment, 3), (sym_pascal_style_comment, 3),
     (sym_pragma, 3)]"

lemma ts_parse_row_524_scan: "row_scan tokens_63_2 0 ts_parse_row_524 = Some (Suc (Suc (Suc (Suc 0))))"
  unfolding ts_parse_row_524_def by simp

text \<open>Lines 114534 to 114646.\<close>

definition ts_parse_row_525 :: parse_row where
  "ts_parse_row_525 =
    [(sym_ERR_assign_func_call, 7530), (sym_ERR_unexpected_this_in_path, 2372),
     (sym_ERR_unexpected_super_in_path, 2372), (sym_ERR_fb_variables_after_method, 1439),
     (sym_ERR_var_access_not_allowed, 3160), (sym_ERR_var_config_not_allowed, 3160),
     (sym_ERR_var_global_not_allowed, 3160), (sym_ERR_method_decl_in_body, 3150),
     (sym_extern_pragma, 7490), (sym_wasm_pragma, 3150), (sym_warn_pragma, 7490),
     (sym_allow_pragma, 3140), (sym_test_pragma, 7490), (sym_once_pragma, 7490),
     (sym_must_call_pragma, 7490), (sym_export_pragma, 7490), (sym_pou_pragma, 7194),
     (sym_direct_variable, 7675), (sym_deref_expression, 2373), (sym_variable, 7599),
     (sym_var_access, 2373), (sym_in_out_decls, 3160), (sym_var_decls, 3160),
     (sym_retain_var_decls, 3160), (sym_temp_var_decls, 3160), (sym_external_var_decls, 3160),
     (sym_global_var_decls, 2947), (sym_loc_partly_var_decl, 3160), (sym__fb_variables, 2343),
     (sym_fb_input_decls, 3160), (sym_fb_output_decls, 3160), (sym_no_retain_var_decls, 3160),
     (sym_fb_body, 9899), (sym_method_decl, 2549), (sym_prog_access_decls, 3043), (sym_SFC, 7970),
     (sym_SFC_network, 7612), (sym_initial_step, 7439), (sym_config_init, 3047),
     (sym_variable_access, 7530), (sym_func_call, 2961), (sym_stmt_list, 7970), (sym__stmt, 2024),
     (sym_assign, 3150), (sym_if_stmt, 3150), (sym_case_stmt, 3150), (sym_for_stmt, 3150),
     (sym_while_stmt, 3150), (sym_repeat_stmt, 3150), (sym_raise_stmt, 3150), (sym_try_stmt, 3150),
     (sym_ERR_clause_outside_try, 3150), (sym_begin_path_expression, 2943), (sym_invocation, 2934),
     (sym_any_invocation, 2935), (sym_this_invocation, 2641), (sym_super_invocation, 2641),
     (sym_super_body_invocation, 2935), (sym_path_expression, 2627), (sym_field_expression, 2373),
     (sym_index_expression, 2373), (sym_ladder_diagram, 7970), (sym_fb_diagram, 7970),
     (aux_sym_ERR_fb_variables_after_method_repeat1, 2343), (aux_sym_func_decl_repeat1, 7194),
     (aux_sym_fb_decl_repeat3, 2549), (aux_sym_SFC_repeat1, 7612),
     (aux_sym_stmt_list_repeat1, 2024), (aux_sym_ladder_diagram_repeat1, 8009),
     (aux_sym_fb_diagram_repeat1, 8013), (sym_identifier, 298),
     (aux_sym_ERR_unexpected_this_in_path_token1, 304),
     (aux_sym_ERR_unexpected_super_in_path_token1, 306), (sym_line_comment, 3),
     (anon_sym_LBRACE, 308), (aux_sym_test_pragma_token1, 9), (aux_sym_once_pragma_token1, 11),
     (aux_sym_must_call_pragma_token1, 13), (aux_sym_export_pragma_token1, 15),
     (anon_sym_SEMI, 310), (anon_sym_PERCENT, 312), (aux_sym_input_decls_token1, 314),
     (aux_sym_output_decls_token1, 316), (aux_sym_in_out_decls_token1, 318),
     (aux_sym_var_decls_token1, 320), (aux_sym_temp_var_decls_token1, 322),
     (aux_sym_external_var_decls_token1, 324), (aux_sym_global_var_decls_token1, 326),
     (aux_sym_fb_decl_token4, 1380), (aux_sym_method_decl_token1, 330),
     (aux_sym_prog_access_decls_token1, 332), (aux_sym_initial_step_token1, 334),
     (aux_sym_config_init_token1, 336), (aux_sym__stmt_token1, 340), (aux_sym__stmt_token2, 340),
     (aux_sym__stmt_token3, 340), (aux_sym_if_stmt_token1, 342), (aux_sym_case_stmt_token1, 344),
     (aux_sym_for_stmt_token1, 346), (aux_sym_while_stmt_token1, 348),
     (aux_sym_repeat_stmt_token1, 350), (aux_sym_raise_stmt_token1, 352),
     (aux_sym_try_stmt_token1, 354), (aux_sym_try_stmt_token2, 356),
     (aux_sym_catch_clause_token1, 356), (aux_sym_finally_clause_token1, 356), (sym_ld_rung, 358),
     (sym_fbd_network, 360), (sym_c_style_comment, 3), (sym_pascal_style_comment, 3),
     (sym_pragma, 3)]"

lemma ts_parse_row_525_scan: "row_scan tokens_63_2 0 ts_parse_row_525 = Some (Suc (Suc (Suc (Suc 0))))"
  unfolding ts_parse_row_525_def by simp

text \<open>Lines 114647 to 114759.\<close>

definition ts_parse_row_526 :: parse_row where
  "ts_parse_row_526 =
    [(sym_ERR_assign_func_call, 7530), (sym_ERR_unexpected_this_in_path, 2372),
     (sym_ERR_unexpected_super_in_path, 2372), (sym_ERR_fb_variables_after_method, 1440),
     (sym_ERR_var_access_not_allowed, 3160), (sym_ERR_var_config_not_allowed, 3160),
     (sym_ERR_var_global_not_allowed, 3160), (sym_ERR_method_decl_in_body, 3150),
     (sym_extern_pragma, 7490), (sym_wasm_pragma, 3150), (sym_warn_pragma, 7490),
     (sym_allow_pragma, 3140), (sym_test_pragma, 7490), (sym_once_pragma, 7490),
     (sym_must_call_pragma, 7490), (sym_export_pragma, 7490), (sym_pou_pragma, 7194),
     (sym_direct_variable, 7675), (sym_deref_expression, 2373), (sym_variable, 7599),
     (sym_var_access, 2373), (sym_in_out_decls, 3160), (sym_var_decls, 3160),
     (sym_retain_var_decls, 3160), (sym_temp_var_decls, 3160), (sym_external_var_decls, 3160),
     (sym_global_var_decls, 2947), (sym_loc_partly_var_decl, 3160), (sym__fb_variables, 2343),
     (sym_fb_input_decls, 3160), (sym_fb_output_decls, 3160), (sym_no_retain_var_decls, 3160),
     (sym_fb_body, 9927), (sym_method_decl, 2549), (sym_prog_access_decls, 3043), (sym_SFC, 7970),
     (sym_SFC_network, 7612), (sym_initial_step, 7439), (sym_config_init, 3047),
     (sym_variable_access, 7530), (sym_func_call, 2961), (sym_stmt_list, 7970), (sym__stmt, 2024),
     (sym_assign, 3150), (sym_if_stmt, 3150), (sym_case_stmt, 3150), (sym_for_stmt, 3150),
     (sym_while_stmt, 3150), (sym_repeat_stmt, 3150), (sym_raise_stmt, 3150), (sym_try_stmt, 3150),
     (sym_ERR_clause_outside_try, 3150), (sym_begin_path_expression, 2943), (sym_invocation, 2934),
     (sym_any_invocation, 2935), (sym_this_invocation, 2641), (sym_super_invocation, 2641),
     (sym_super_body_invocation, 2935), (sym_path_expression, 2627), (sym_field_expression, 2373),
     (sym_index_expression, 2373), (sym_ladder_diagram, 7970), (sym_fb_diagram, 7970),
     (aux_sym_ERR_fb_variables_after_method_repeat1, 2343), (aux_sym_func_decl_repeat1, 7194),
     (aux_sym_fb_decl_repeat3, 2549), (aux_sym_SFC_repeat1, 7612),
     (aux_sym_stmt_list_repeat1, 2024), (aux_sym_ladder_diagram_repeat1, 8009),
     (aux_sym_fb_diagram_repeat1, 8013), (sym_identifier, 298),
     (aux_sym_ERR_unexpected_this_in_path_token1, 304),
     (aux_sym_ERR_unexpected_super_in_path_token1, 306), (sym_line_comment, 3),
     (anon_sym_LBRACE, 308), (aux_sym_test_pragma_token1, 9), (aux_sym_once_pragma_token1, 11),
     (aux_sym_must_call_pragma_token1, 13), (aux_sym_export_pragma_token1, 15),
     (anon_sym_SEMI, 310), (anon_sym_PERCENT, 312), (aux_sym_input_decls_token1, 314),
     (aux_sym_output_decls_token1, 316), (aux_sym_in_out_decls_token1, 318),
     (aux_sym_var_decls_token1, 320), (aux_sym_temp_var_decls_token1, 322),
     (aux_sym_external_var_decls_token1, 324), (aux_sym_global_var_decls_token1, 326),
     (aux_sym_fb_decl_token4, 1382), (aux_sym_method_decl_token1, 330),
     (aux_sym_prog_access_decls_token1, 332), (aux_sym_initial_step_token1, 334),
     (aux_sym_config_init_token1, 336), (aux_sym__stmt_token1, 340), (aux_sym__stmt_token2, 340),
     (aux_sym__stmt_token3, 340), (aux_sym_if_stmt_token1, 342), (aux_sym_case_stmt_token1, 344),
     (aux_sym_for_stmt_token1, 346), (aux_sym_while_stmt_token1, 348),
     (aux_sym_repeat_stmt_token1, 350), (aux_sym_raise_stmt_token1, 352),
     (aux_sym_try_stmt_token1, 354), (aux_sym_try_stmt_token2, 356),
     (aux_sym_catch_clause_token1, 356), (aux_sym_finally_clause_token1, 356), (sym_ld_rung, 358),
     (sym_fbd_network, 360), (sym_c_style_comment, 3), (sym_pascal_style_comment, 3),
     (sym_pragma, 3)]"

lemma ts_parse_row_526_scan: "row_scan tokens_63_2 0 ts_parse_row_526 = Some (Suc (Suc (Suc (Suc 0))))"
  unfolding ts_parse_row_526_def by simp

text \<open>Lines 114760 to 114872.\<close>

definition ts_parse_row_527 :: parse_row where
  "ts_parse_row_527 =
    [(sym_ERR_assign_func_call, 7530), (sym_ERR_unexpected_this_in_path, 2372),
     (sym_ERR_unexpected_super_in_path, 2372), (sym_ERR_fb_variables_after_method, 1441),
     (sym_ERR_var_access_not_allowed, 3160), (sym_ERR_var_config_not_allowed, 3160),
     (sym_ERR_var_global_not_allowed, 3160), (sym_ERR_method_decl_in_body, 3150),
     (sym_extern_pragma, 7490), (sym_wasm_pragma, 3150), (sym_warn_pragma, 7490),
     (sym_allow_pragma, 3140), (sym_test_pragma, 7490), (sym_once_pragma, 7490),
     (sym_must_call_pragma, 7490), (sym_export_pragma, 7490), (sym_pou_pragma, 7194),
     (sym_direct_variable, 7675), (sym_deref_expression, 2373), (sym_variable, 7599),
     (sym_var_access, 2373), (sym_in_out_decls, 3160), (sym_var_decls, 3160),
     (sym_retain_var_decls, 3160), (sym_temp_var_decls, 3160), (sym_external_var_decls, 3160),
     (sym_global_var_decls, 2947), (sym_loc_partly_var_decl, 3160), (sym__fb_variables, 2343),
     (sym_fb_input_decls, 3160), (sym_fb_output_decls, 3160), (sym_no_retain_var_decls, 3160),
     (sym_fb_body, 9962), (sym_method_decl, 2549), (sym_prog_access_decls, 3043), (sym_SFC, 7970),
     (sym_SFC_network, 7612), (sym_initial_step, 7439), (sym_config_init, 3047),
     (sym_variable_access, 7530), (sym_func_call, 2961), (sym_stmt_list, 7970), (sym__stmt, 2024),
     (sym_assign, 3150), (sym_if_stmt, 3150), (sym_case_stmt, 3150), (sym_for_stmt, 3150),
     (sym_while_stmt, 3150), (sym_repeat_stmt, 3150), (sym_raise_stmt, 3150), (sym_try_stmt, 3150),
     (sym_ERR_clause_outside_try, 3150), (sym_begin_path_expression, 2943), (sym_invocation, 2934),
     (sym_any_invocation, 2935), (sym_this_invocation, 2641), (sym_super_invocation, 2641),
     (sym_super_body_invocation, 2935), (sym_path_expression, 2627), (sym_field_expression, 2373),
     (sym_index_expression, 2373), (sym_ladder_diagram, 7970), (sym_fb_diagram, 7970),
     (aux_sym_ERR_fb_variables_after_method_repeat1, 2343), (aux_sym_func_decl_repeat1, 7194),
     (aux_sym_fb_decl_repeat3, 2549), (aux_sym_SFC_repeat1, 7612),
     (aux_sym_stmt_list_repeat1, 2024), (aux_sym_ladder_diagram_repeat1, 8009),
     (aux_sym_fb_diagram_repeat1, 8013), (sym_identifier, 298),
     (aux_sym_ERR_unexpected_this_in_path_token1, 304),
     (aux_sym_ERR_unexpected_super_in_path_token1, 306), (sym_line_comment, 3),
     (anon_sym_LBRACE, 308), (aux_sym_test_pragma_token1, 9), (aux_sym_once_pragma_token1, 11),
     (aux_sym_must_call_pragma_token1, 13), (aux_sym_export_pragma_token1, 15),
     (anon_sym_SEMI, 310), (anon_sym_PERCENT, 312), (aux_sym_input_decls_token1, 314),
     (aux_sym_output_decls_token1, 316), (aux_sym_in_out_decls_token1, 318),
     (aux_sym_var_decls_token1, 320), (aux_sym_temp_var_decls_token1, 322),
     (aux_sym_external_var_decls_token1, 324), (aux_sym_global_var_decls_token1, 326),
     (aux_sym_fb_decl_token4, 1384), (aux_sym_method_decl_token1, 330),
     (aux_sym_prog_access_decls_token1, 332), (aux_sym_initial_step_token1, 334),
     (aux_sym_config_init_token1, 336), (aux_sym__stmt_token1, 340), (aux_sym__stmt_token2, 340),
     (aux_sym__stmt_token3, 340), (aux_sym_if_stmt_token1, 342), (aux_sym_case_stmt_token1, 344),
     (aux_sym_for_stmt_token1, 346), (aux_sym_while_stmt_token1, 348),
     (aux_sym_repeat_stmt_token1, 350), (aux_sym_raise_stmt_token1, 352),
     (aux_sym_try_stmt_token1, 354), (aux_sym_try_stmt_token2, 356),
     (aux_sym_catch_clause_token1, 356), (aux_sym_finally_clause_token1, 356), (sym_ld_rung, 358),
     (sym_fbd_network, 360), (sym_c_style_comment, 3), (sym_pascal_style_comment, 3),
     (sym_pragma, 3)]"

lemma ts_parse_row_527_scan: "row_scan tokens_63_2 0 ts_parse_row_527 = Some (Suc (Suc (Suc (Suc 0))))"
  unfolding ts_parse_row_527_def by simp

text \<open>Lines 114873 to 114985.\<close>

definition ts_parse_row_528 :: parse_row where
  "ts_parse_row_528 =
    [(sym_ERR_assign_func_call, 7530), (sym_ERR_unexpected_this_in_path, 2372),
     (sym_ERR_unexpected_super_in_path, 2372), (sym_ERR_fb_variables_after_method, 1442),
     (sym_ERR_var_access_not_allowed, 3160), (sym_ERR_var_config_not_allowed, 3160),
     (sym_ERR_var_global_not_allowed, 3160), (sym_ERR_method_decl_in_body, 3150),
     (sym_extern_pragma, 7490), (sym_wasm_pragma, 3150), (sym_warn_pragma, 7490),
     (sym_allow_pragma, 3140), (sym_test_pragma, 7490), (sym_once_pragma, 7490),
     (sym_must_call_pragma, 7490), (sym_export_pragma, 7490), (sym_pou_pragma, 7194),
     (sym_direct_variable, 7675), (sym_deref_expression, 2373), (sym_variable, 7599),
     (sym_var_access, 2373), (sym_in_out_decls, 3160), (sym_var_decls, 3160),
     (sym_retain_var_decls, 3160), (sym_temp_var_decls, 3160), (sym_external_var_decls, 3160),
     (sym_global_var_decls, 2947), (sym_loc_partly_var_decl, 3160), (sym__fb_variables, 2343),
     (sym_fb_input_decls, 3160), (sym_fb_output_decls, 3160), (sym_no_retain_var_decls, 3160),
     (sym_fb_body, 10002), (sym_method_decl, 2549), (sym_prog_access_decls, 3043), (sym_SFC, 7970),
     (sym_SFC_network, 7612), (sym_initial_step, 7439), (sym_config_init, 3047),
     (sym_variable_access, 7530), (sym_func_call, 2961), (sym_stmt_list, 7970), (sym__stmt, 2024),
     (sym_assign, 3150), (sym_if_stmt, 3150), (sym_case_stmt, 3150), (sym_for_stmt, 3150),
     (sym_while_stmt, 3150), (sym_repeat_stmt, 3150), (sym_raise_stmt, 3150), (sym_try_stmt, 3150),
     (sym_ERR_clause_outside_try, 3150), (sym_begin_path_expression, 2943), (sym_invocation, 2934),
     (sym_any_invocation, 2935), (sym_this_invocation, 2641), (sym_super_invocation, 2641),
     (sym_super_body_invocation, 2935), (sym_path_expression, 2627), (sym_field_expression, 2373),
     (sym_index_expression, 2373), (sym_ladder_diagram, 7970), (sym_fb_diagram, 7970),
     (aux_sym_ERR_fb_variables_after_method_repeat1, 2343), (aux_sym_func_decl_repeat1, 7194),
     (aux_sym_fb_decl_repeat3, 2549), (aux_sym_SFC_repeat1, 7612),
     (aux_sym_stmt_list_repeat1, 2024), (aux_sym_ladder_diagram_repeat1, 8009),
     (aux_sym_fb_diagram_repeat1, 8013), (sym_identifier, 298),
     (aux_sym_ERR_unexpected_this_in_path_token1, 304),
     (aux_sym_ERR_unexpected_super_in_path_token1, 306), (sym_line_comment, 3),
     (anon_sym_LBRACE, 308), (aux_sym_test_pragma_token1, 9), (aux_sym_once_pragma_token1, 11),
     (aux_sym_must_call_pragma_token1, 13), (aux_sym_export_pragma_token1, 15),
     (anon_sym_SEMI, 310), (anon_sym_PERCENT, 312), (aux_sym_input_decls_token1, 314),
     (aux_sym_output_decls_token1, 316), (aux_sym_in_out_decls_token1, 318),
     (aux_sym_var_decls_token1, 320), (aux_sym_temp_var_decls_token1, 322),
     (aux_sym_external_var_decls_token1, 324), (aux_sym_global_var_decls_token1, 326),
     (aux_sym_fb_decl_token4, 1386), (aux_sym_method_decl_token1, 330),
     (aux_sym_prog_access_decls_token1, 332), (aux_sym_initial_step_token1, 334),
     (aux_sym_config_init_token1, 336), (aux_sym__stmt_token1, 340), (aux_sym__stmt_token2, 340),
     (aux_sym__stmt_token3, 340), (aux_sym_if_stmt_token1, 342), (aux_sym_case_stmt_token1, 344),
     (aux_sym_for_stmt_token1, 346), (aux_sym_while_stmt_token1, 348),
     (aux_sym_repeat_stmt_token1, 350), (aux_sym_raise_stmt_token1, 352),
     (aux_sym_try_stmt_token1, 354), (aux_sym_try_stmt_token2, 356),
     (aux_sym_catch_clause_token1, 356), (aux_sym_finally_clause_token1, 356), (sym_ld_rung, 358),
     (sym_fbd_network, 360), (sym_c_style_comment, 3), (sym_pascal_style_comment, 3),
     (sym_pragma, 3)]"

lemma ts_parse_row_528_scan: "row_scan tokens_63_2 0 ts_parse_row_528 = Some (Suc (Suc (Suc (Suc 0))))"
  unfolding ts_parse_row_528_def by simp

text \<open>Lines 114986 to 115098.\<close>

definition ts_parse_row_529 :: parse_row where
  "ts_parse_row_529 =
    [(sym_ERR_assign_func_call, 7530), (sym_ERR_unexpected_this_in_path, 2372),
     (sym_ERR_unexpected_super_in_path, 2372), (sym_ERR_fb_variables_after_method, 1443),
     (sym_ERR_var_access_not_allowed, 3160), (sym_ERR_var_config_not_allowed, 3160),
     (sym_ERR_var_global_not_allowed, 3160), (sym_ERR_method_decl_in_body, 3150),
     (sym_extern_pragma, 7490), (sym_wasm_pragma, 3150), (sym_warn_pragma, 7490),
     (sym_allow_pragma, 3140), (sym_test_pragma, 7490), (sym_once_pragma, 7490),
     (sym_must_call_pragma, 7490), (sym_export_pragma, 7490), (sym_pou_pragma, 7194),
     (sym_direct_variable, 7675), (sym_deref_expression, 2373), (sym_variable, 7599),
     (sym_var_access, 2373), (sym_in_out_decls, 3160), (sym_var_decls, 3160),
     (sym_retain_var_decls, 3160), (sym_temp_var_decls, 3160), (sym_external_var_decls, 3160),
     (sym_global_var_decls, 2947), (sym_loc_partly_var_decl, 3160), (sym__fb_variables, 2347),
     (sym_fb_input_decls, 3160), (sym_fb_output_decls, 3160), (sym_no_retain_var_decls, 3160),
     (sym_fb_body, 10012), (sym_method_decl, 658), (sym_prog_access_decls, 3043), (sym_SFC, 7970),
     (sym_SFC_network, 7612), (sym_initial_step, 7439), (sym_config_init, 3047),
     (sym_variable_access, 7530), (sym_func_call, 2961), (sym_stmt_list, 7970), (sym__stmt, 2024),
     (sym_assign, 3150), (sym_if_stmt, 3150), (sym_case_stmt, 3150), (sym_for_stmt, 3150),
     (sym_while_stmt, 3150), (sym_repeat_stmt, 3150), (sym_raise_stmt, 3150), (sym_try_stmt, 3150),
     (sym_ERR_clause_outside_try, 3150), (sym_begin_path_expression, 2943), (sym_invocation, 2934),
     (sym_any_invocation, 2935), (sym_this_invocation, 2641), (sym_super_invocation, 2641),
     (sym_super_body_invocation, 2935), (sym_path_expression, 2627), (sym_field_expression, 2373),
     (sym_index_expression, 2373), (sym_ladder_diagram, 7970), (sym_fb_diagram, 7970),
     (aux_sym_ERR_fb_variables_after_method_repeat1, 2347), (aux_sym_func_decl_repeat1, 7194),
     (aux_sym_fb_decl_repeat3, 658), (aux_sym_SFC_repeat1, 7612), (aux_sym_stmt_list_repeat1, 2024),
     (aux_sym_ladder_diagram_repeat1, 8009), (aux_sym_fb_diagram_repeat1, 8013),
     (sym_identifier, 298), (aux_sym_ERR_unexpected_this_in_path_token1, 304),
     (aux_sym_ERR_unexpected_super_in_path_token1, 306), (sym_line_comment, 3),
     (anon_sym_LBRACE, 308), (aux_sym_test_pragma_token1, 9), (aux_sym_once_pragma_token1, 11),
     (aux_sym_must_call_pragma_token1, 13), (aux_sym_export_pragma_token1, 15),
     (anon_sym_SEMI, 310), (anon_sym_PERCENT, 312), (aux_sym_input_decls_token1, 314),
     (aux_sym_output_decls_token1, 316), (aux_sym_in_out_decls_token1, 318),
     (aux_sym_var_decls_token1, 320), (aux_sym_temp_var_decls_token1, 322),
     (aux_sym_external_var_decls_token1, 324), (aux_sym_global_var_decls_token1, 326),
     (aux_sym_fb_decl_token4, 1388), (aux_sym_method_decl_token1, 330),
     (aux_sym_prog_access_decls_token1, 332), (aux_sym_initial_step_token1, 334),
     (aux_sym_config_init_token1, 336), (aux_sym__stmt_token1, 340), (aux_sym__stmt_token2, 340),
     (aux_sym__stmt_token3, 340), (aux_sym_if_stmt_token1, 342), (aux_sym_case_stmt_token1, 344),
     (aux_sym_for_stmt_token1, 346), (aux_sym_while_stmt_token1, 348),
     (aux_sym_repeat_stmt_token1, 350), (aux_sym_raise_stmt_token1, 352),
     (aux_sym_try_stmt_token1, 354), (aux_sym_try_stmt_token2, 356),
     (aux_sym_catch_clause_token1, 356), (aux_sym_finally_clause_token1, 356), (sym_ld_rung, 358),
     (sym_fbd_network, 360), (sym_c_style_comment, 3), (sym_pascal_style_comment, 3),
     (sym_pragma, 3)]"

lemma ts_parse_row_529_scan: "row_scan tokens_63_2 0 ts_parse_row_529 = Some (Suc (Suc (Suc (Suc 0))))"
  unfolding ts_parse_row_529_def by simp

text \<open>Lines 115099 to 115211.\<close>

definition ts_parse_row_530 :: parse_row where
  "ts_parse_row_530 =
    [(sym_ERR_assign_func_call, 7530), (sym_ERR_unexpected_this_in_path, 2372),
     (sym_ERR_unexpected_super_in_path, 2372), (sym_ERR_fb_variables_after_method, 1445),
     (sym_ERR_var_access_not_allowed, 3160), (sym_ERR_var_config_not_allowed, 3160),
     (sym_ERR_var_global_not_allowed, 3160), (sym_ERR_method_decl_in_body, 3150),
     (sym_extern_pragma, 7490), (sym_wasm_pragma, 3150), (sym_warn_pragma, 7490),
     (sym_allow_pragma, 3140), (sym_test_pragma, 7490), (sym_once_pragma, 7490),
     (sym_must_call_pragma, 7490), (sym_export_pragma, 7490), (sym_pou_pragma, 7194),
     (sym_direct_variable, 7675), (sym_deref_expression, 2373), (sym_variable, 7599),
     (sym_var_access, 2373), (sym_in_out_decls, 3160), (sym_var_decls, 3160),
     (sym_retain_var_decls, 3160), (sym_temp_var_decls, 3160), (sym_external_var_decls, 3160),
     (sym_global_var_decls, 2947), (sym_loc_partly_var_decl, 3160), (sym__fb_variables, 2343),
     (sym_fb_input_decls, 3160), (sym_fb_output_decls, 3160), (sym_no_retain_var_decls, 3160),
     (sym_fb_body, 10019), (sym_method_decl, 2549), (sym_prog_access_decls, 3043), (sym_SFC, 7970),
     (sym_SFC_network, 7612), (sym_initial_step, 7439), (sym_config_init, 3047),
     (sym_variable_access, 7530), (sym_func_call, 2961), (sym_stmt_list, 7970), (sym__stmt, 2024),
     (sym_assign, 3150), (sym_if_stmt, 3150), (sym_case_stmt, 3150), (sym_for_stmt, 3150),
     (sym_while_stmt, 3150), (sym_repeat_stmt, 3150), (sym_raise_stmt, 3150), (sym_try_stmt, 3150),
     (sym_ERR_clause_outside_try, 3150), (sym_begin_path_expression, 2943), (sym_invocation, 2934),
     (sym_any_invocation, 2935), (sym_this_invocation, 2641), (sym_super_invocation, 2641),
     (sym_super_body_invocation, 2935), (sym_path_expression, 2627), (sym_field_expression, 2373),
     (sym_index_expression, 2373), (sym_ladder_diagram, 7970), (sym_fb_diagram, 7970),
     (aux_sym_ERR_fb_variables_after_method_repeat1, 2343), (aux_sym_func_decl_repeat1, 7194),
     (aux_sym_fb_decl_repeat3, 2549), (aux_sym_SFC_repeat1, 7612),
     (aux_sym_stmt_list_repeat1, 2024), (aux_sym_ladder_diagram_repeat1, 8009),
     (aux_sym_fb_diagram_repeat1, 8013), (sym_identifier, 298),
     (aux_sym_ERR_unexpected_this_in_path_token1, 304),
     (aux_sym_ERR_unexpected_super_in_path_token1, 306), (sym_line_comment, 3),
     (anon_sym_LBRACE, 308), (aux_sym_test_pragma_token1, 9), (aux_sym_once_pragma_token1, 11),
     (aux_sym_must_call_pragma_token1, 13), (aux_sym_export_pragma_token1, 15),
     (anon_sym_SEMI, 310), (anon_sym_PERCENT, 312), (aux_sym_input_decls_token1, 314),
     (aux_sym_output_decls_token1, 316), (aux_sym_in_out_decls_token1, 318),
     (aux_sym_var_decls_token1, 320), (aux_sym_temp_var_decls_token1, 322),
     (aux_sym_external_var_decls_token1, 324), (aux_sym_global_var_decls_token1, 326),
     (aux_sym_fb_decl_token4, 1390), (aux_sym_method_decl_token1, 330),
     (aux_sym_prog_access_decls_token1, 332), (aux_sym_initial_step_token1, 334),
     (aux_sym_config_init_token1, 336), (aux_sym__stmt_token1, 340), (aux_sym__stmt_token2, 340),
     (aux_sym__stmt_token3, 340), (aux_sym_if_stmt_token1, 342), (aux_sym_case_stmt_token1, 344),
     (aux_sym_for_stmt_token1, 346), (aux_sym_while_stmt_token1, 348),
     (aux_sym_repeat_stmt_token1, 350), (aux_sym_raise_stmt_token1, 352),
     (aux_sym_try_stmt_token1, 354), (aux_sym_try_stmt_token2, 356),
     (aux_sym_catch_clause_token1, 356), (aux_sym_finally_clause_token1, 356), (sym_ld_rung, 358),
     (sym_fbd_network, 360), (sym_c_style_comment, 3), (sym_pascal_style_comment, 3),
     (sym_pragma, 3)]"

lemma ts_parse_row_530_scan: "row_scan tokens_63_2 0 ts_parse_row_530 = Some (Suc (Suc (Suc (Suc 0))))"
  unfolding ts_parse_row_530_def by simp

text \<open>Lines 115212 to 115324.\<close>

definition ts_parse_row_531 :: parse_row where
  "ts_parse_row_531 =
    [(sym_ERR_assign_func_call, 7530), (sym_ERR_unexpected_this_in_path, 2372),
     (sym_ERR_unexpected_super_in_path, 2372), (sym_ERR_fb_variables_after_method, 1446),
     (sym_ERR_var_access_not_allowed, 3160), (sym_ERR_var_config_not_allowed, 3160),
     (sym_ERR_var_global_not_allowed, 3160), (sym_ERR_method_decl_in_body, 3150),
     (sym_extern_pragma, 7490), (sym_wasm_pragma, 3150), (sym_warn_pragma, 7490),
     (sym_allow_pragma, 3140), (sym_test_pragma, 7490), (sym_once_pragma, 7490),
     (sym_must_call_pragma, 7490), (sym_export_pragma, 7490), (sym_pou_pragma, 7194),
     (sym_direct_variable, 7675), (sym_deref_expression, 2373), (sym_variable, 7599),
     (sym_var_access, 2373), (sym_in_out_decls, 3160), (sym_var_decls, 3160),
     (sym_retain_var_decls, 3160), (sym_temp_var_decls, 3160), (sym_external_var_decls, 3160),
     (sym_global_var_decls, 2947), (sym_loc_partly_var_decl, 3160), (sym__fb_variables, 2347),
     (sym_fb_input_decls, 3160), (sym_fb_output_decls, 3160), (sym_no_retain_var_decls, 3160),
     (sym_fb_body, 10026), (sym_method_decl, 659), (sym_prog_access_decls, 3043), (sym_SFC, 7970),
     (sym_SFC_network, 7612), (sym_initial_step, 7439), (sym_config_init, 3047),
     (sym_variable_access, 7530), (sym_func_call, 2961), (sym_stmt_list, 7970), (sym__stmt, 2024),
     (sym_assign, 3150), (sym_if_stmt, 3150), (sym_case_stmt, 3150), (sym_for_stmt, 3150),
     (sym_while_stmt, 3150), (sym_repeat_stmt, 3150), (sym_raise_stmt, 3150), (sym_try_stmt, 3150),
     (sym_ERR_clause_outside_try, 3150), (sym_begin_path_expression, 2943), (sym_invocation, 2934),
     (sym_any_invocation, 2935), (sym_this_invocation, 2641), (sym_super_invocation, 2641),
     (sym_super_body_invocation, 2935), (sym_path_expression, 2627), (sym_field_expression, 2373),
     (sym_index_expression, 2373), (sym_ladder_diagram, 7970), (sym_fb_diagram, 7970),
     (aux_sym_ERR_fb_variables_after_method_repeat1, 2347), (aux_sym_func_decl_repeat1, 7194),
     (aux_sym_fb_decl_repeat3, 659), (aux_sym_SFC_repeat1, 7612), (aux_sym_stmt_list_repeat1, 2024),
     (aux_sym_ladder_diagram_repeat1, 8009), (aux_sym_fb_diagram_repeat1, 8013),
     (sym_identifier, 298), (aux_sym_ERR_unexpected_this_in_path_token1, 304),
     (aux_sym_ERR_unexpected_super_in_path_token1, 306), (sym_line_comment, 3),
     (anon_sym_LBRACE, 308), (aux_sym_test_pragma_token1, 9), (aux_sym_once_pragma_token1, 11),
     (aux_sym_must_call_pragma_token1, 13), (aux_sym_export_pragma_token1, 15),
     (anon_sym_SEMI, 310), (anon_sym_PERCENT, 312), (aux_sym_input_decls_token1, 314),
     (aux_sym_output_decls_token1, 316), (aux_sym_in_out_decls_token1, 318),
     (aux_sym_var_decls_token1, 320), (aux_sym_temp_var_decls_token1, 322),
     (aux_sym_external_var_decls_token1, 324), (aux_sym_global_var_decls_token1, 326),
     (aux_sym_fb_decl_token4, 1392), (aux_sym_method_decl_token1, 330),
     (aux_sym_prog_access_decls_token1, 332), (aux_sym_initial_step_token1, 334),
     (aux_sym_config_init_token1, 336), (aux_sym__stmt_token1, 340), (aux_sym__stmt_token2, 340),
     (aux_sym__stmt_token3, 340), (aux_sym_if_stmt_token1, 342), (aux_sym_case_stmt_token1, 344),
     (aux_sym_for_stmt_token1, 346), (aux_sym_while_stmt_token1, 348),
     (aux_sym_repeat_stmt_token1, 350), (aux_sym_raise_stmt_token1, 352),
     (aux_sym_try_stmt_token1, 354), (aux_sym_try_stmt_token2, 356),
     (aux_sym_catch_clause_token1, 356), (aux_sym_finally_clause_token1, 356), (sym_ld_rung, 358),
     (sym_fbd_network, 360), (sym_c_style_comment, 3), (sym_pascal_style_comment, 3),
     (sym_pragma, 3)]"

lemma ts_parse_row_531_scan: "row_scan tokens_63_2 0 ts_parse_row_531 = Some (Suc (Suc (Suc (Suc 0))))"
  unfolding ts_parse_row_531_def by simp

text \<open>Lines 115325 to 115437.\<close>

definition ts_parse_row_532 :: parse_row where
  "ts_parse_row_532 =
    [(sym_ERR_assign_func_call, 7530), (sym_ERR_unexpected_this_in_path, 2372),
     (sym_ERR_unexpected_super_in_path, 2372), (sym_ERR_fb_variables_after_method, 1648),
     (sym_ERR_var_access_not_allowed, 3160), (sym_ERR_var_config_not_allowed, 3160),
     (sym_ERR_var_global_not_allowed, 3160), (sym_ERR_method_decl_in_body, 3150),
     (sym_extern_pragma, 7490), (sym_wasm_pragma, 3150), (sym_warn_pragma, 7490),
     (sym_allow_pragma, 3140), (sym_test_pragma, 7490), (sym_once_pragma, 7490),
     (sym_must_call_pragma, 7490), (sym_export_pragma, 7490), (sym_pou_pragma, 7194),
     (sym_direct_variable, 7675), (sym_deref_expression, 2373), (sym_variable, 7599),
     (sym_var_access, 2373), (sym_in_out_decls, 3160), (sym_var_decls, 3160),
     (sym_retain_var_decls, 3160), (sym_temp_var_decls, 3160), (sym_external_var_decls, 3160),
     (sym_global_var_decls, 2947), (sym_loc_partly_var_decl, 3160), (sym__fb_variables, 2343),
     (sym_fb_input_decls, 3160), (sym_fb_output_decls, 3160), (sym_no_retain_var_decls, 3160),
     (sym_fb_body, 8911), (sym_method_decl, 2549), (sym_prog_access_decls, 3043), (sym_SFC, 7970),
     (sym_SFC_network, 7612), (sym_initial_step, 7439), (sym_config_init, 3047),
     (sym_variable_access, 7530), (sym_func_call, 2961), (sym_stmt_list, 7970), (sym__stmt, 2024),
     (sym_assign, 3150), (sym_if_stmt, 3150), (sym_case_stmt, 3150), (sym_for_stmt, 3150),
     (sym_while_stmt, 3150), (sym_repeat_stmt, 3150), (sym_raise_stmt, 3150), (sym_try_stmt, 3150),
     (sym_ERR_clause_outside_try, 3150), (sym_begin_path_expression, 2943), (sym_invocation, 2934),
     (sym_any_invocation, 2935), (sym_this_invocation, 2641), (sym_super_invocation, 2641),
     (sym_super_body_invocation, 2935), (sym_path_expression, 2627), (sym_field_expression, 2373),
     (sym_index_expression, 2373), (sym_ladder_diagram, 7970), (sym_fb_diagram, 7970),
     (aux_sym_ERR_fb_variables_after_method_repeat1, 2343), (aux_sym_func_decl_repeat1, 7194),
     (aux_sym_fb_decl_repeat3, 2549), (aux_sym_SFC_repeat1, 7612),
     (aux_sym_stmt_list_repeat1, 2024), (aux_sym_ladder_diagram_repeat1, 8009),
     (aux_sym_fb_diagram_repeat1, 8013), (sym_identifier, 298),
     (aux_sym_ERR_unexpected_this_in_path_token1, 304),
     (aux_sym_ERR_unexpected_super_in_path_token1, 306), (sym_line_comment, 3),
     (anon_sym_LBRACE, 308), (aux_sym_test_pragma_token1, 9), (aux_sym_once_pragma_token1, 11),
     (aux_sym_must_call_pragma_token1, 13), (aux_sym_export_pragma_token1, 15),
     (anon_sym_SEMI, 310), (anon_sym_PERCENT, 312), (aux_sym_input_decls_token1, 314),
     (aux_sym_output_decls_token1, 316), (aux_sym_in_out_decls_token1, 318),
     (aux_sym_var_decls_token1, 320), (aux_sym_temp_var_decls_token1, 322),
     (aux_sym_external_var_decls_token1, 324), (aux_sym_global_var_decls_token1, 326),
     (aux_sym_fb_decl_token4, 1394), (aux_sym_method_decl_token1, 330),
     (aux_sym_prog_access_decls_token1, 332), (aux_sym_initial_step_token1, 334),
     (aux_sym_config_init_token1, 336), (aux_sym__stmt_token1, 340), (aux_sym__stmt_token2, 340),
     (aux_sym__stmt_token3, 340), (aux_sym_if_stmt_token1, 342), (aux_sym_case_stmt_token1, 344),
     (aux_sym_for_stmt_token1, 346), (aux_sym_while_stmt_token1, 348),
     (aux_sym_repeat_stmt_token1, 350), (aux_sym_raise_stmt_token1, 352),
     (aux_sym_try_stmt_token1, 354), (aux_sym_try_stmt_token2, 356),
     (aux_sym_catch_clause_token1, 356), (aux_sym_finally_clause_token1, 356), (sym_ld_rung, 358),
     (sym_fbd_network, 360), (sym_c_style_comment, 3), (sym_pascal_style_comment, 3),
     (sym_pragma, 3)]"

lemma ts_parse_row_532_scan: "row_scan tokens_63_2 0 ts_parse_row_532 = Some (Suc (Suc (Suc (Suc 0))))"
  unfolding ts_parse_row_532_def by simp

text \<open>Lines 115438 to 115550.\<close>

definition ts_parse_row_533 :: parse_row where
  "ts_parse_row_533 =
    [(sym_ERR_assign_func_call, 7530), (sym_ERR_unexpected_this_in_path, 2372),
     (sym_ERR_unexpected_super_in_path, 2372), (sym_ERR_fb_variables_after_method, 1450),
     (sym_ERR_var_access_not_allowed, 3160), (sym_ERR_var_config_not_allowed, 3160),
     (sym_ERR_var_global_not_allowed, 3160), (sym_ERR_method_decl_in_body, 3150),
     (sym_extern_pragma, 7490), (sym_wasm_pragma, 3150), (sym_warn_pragma, 7490),
     (sym_allow_pragma, 3140), (sym_test_pragma, 7490), (sym_once_pragma, 7490),
     (sym_must_call_pragma, 7490), (sym_export_pragma, 7490), (sym_pou_pragma, 7194),
     (sym_direct_variable, 7675), (sym_deref_expression, 2373), (sym_variable, 7599),
     (sym_var_access, 2373), (sym_in_out_decls, 3160), (sym_var_decls, 3160),
     (sym_retain_var_decls, 3160), (sym_temp_var_decls, 3160), (sym_external_var_decls, 3160),
     (sym_global_var_decls, 2947), (sym_loc_partly_var_decl, 3160), (sym__fb_variables, 2343),
     (sym_fb_input_decls, 3160), (sym_fb_output_decls, 3160), (sym_no_retain_var_decls, 3160),
     (sym_fb_body, 10037), (sym_method_decl, 2549), (sym_prog_access_decls, 3043), (sym_SFC, 7970),
     (sym_SFC_network, 7612), (sym_initial_step, 7439), (sym_config_init, 3047),
     (sym_variable_access, 7530), (sym_func_call, 2961), (sym_stmt_list, 7970), (sym__stmt, 2024),
     (sym_assign, 3150), (sym_if_stmt, 3150), (sym_case_stmt, 3150), (sym_for_stmt, 3150),
     (sym_while_stmt, 3150), (sym_repeat_stmt, 3150), (sym_raise_stmt, 3150), (sym_try_stmt, 3150),
     (sym_ERR_clause_outside_try, 3150), (sym_begin_path_expression, 2943), (sym_invocation, 2934),
     (sym_any_invocation, 2935), (sym_this_invocation, 2641), (sym_super_invocation, 2641),
     (sym_super_body_invocation, 2935), (sym_path_expression, 2627), (sym_field_expression, 2373),
     (sym_index_expression, 2373), (sym_ladder_diagram, 7970), (sym_fb_diagram, 7970),
     (aux_sym_ERR_fb_variables_after_method_repeat1, 2343), (aux_sym_func_decl_repeat1, 7194),
     (aux_sym_fb_decl_repeat3, 2549), (aux_sym_SFC_repeat1, 7612),
     (aux_sym_stmt_list_repeat1, 2024), (aux_sym_ladder_diagram_repeat1, 8009),
     (aux_sym_fb_diagram_repeat1, 8013), (sym_identifier, 298),
     (aux_sym_ERR_unexpected_this_in_path_token1, 304),
     (aux_sym_ERR_unexpected_super_in_path_token1, 306), (sym_line_comment, 3),
     (anon_sym_LBRACE, 308), (aux_sym_test_pragma_token1, 9), (aux_sym_once_pragma_token1, 11),
     (aux_sym_must_call_pragma_token1, 13), (aux_sym_export_pragma_token1, 15),
     (anon_sym_SEMI, 310), (anon_sym_PERCENT, 312), (aux_sym_input_decls_token1, 314),
     (aux_sym_output_decls_token1, 316), (aux_sym_in_out_decls_token1, 318),
     (aux_sym_var_decls_token1, 320), (aux_sym_temp_var_decls_token1, 322),
     (aux_sym_external_var_decls_token1, 324), (aux_sym_global_var_decls_token1, 326),
     (aux_sym_fb_decl_token4, 1396), (aux_sym_method_decl_token1, 330),
     (aux_sym_prog_access_decls_token1, 332), (aux_sym_initial_step_token1, 334),
     (aux_sym_config_init_token1, 336), (aux_sym__stmt_token1, 340), (aux_sym__stmt_token2, 340),
     (aux_sym__stmt_token3, 340), (aux_sym_if_stmt_token1, 342), (aux_sym_case_stmt_token1, 344),
     (aux_sym_for_stmt_token1, 346), (aux_sym_while_stmt_token1, 348),
     (aux_sym_repeat_stmt_token1, 350), (aux_sym_raise_stmt_token1, 352),
     (aux_sym_try_stmt_token1, 354), (aux_sym_try_stmt_token2, 356),
     (aux_sym_catch_clause_token1, 356), (aux_sym_finally_clause_token1, 356), (sym_ld_rung, 358),
     (sym_fbd_network, 360), (sym_c_style_comment, 3), (sym_pascal_style_comment, 3),
     (sym_pragma, 3)]"

lemma ts_parse_row_533_scan: "row_scan tokens_63_2 0 ts_parse_row_533 = Some (Suc (Suc (Suc (Suc 0))))"
  unfolding ts_parse_row_533_def by simp

text \<open>Lines 115551 to 115663.\<close>

definition ts_parse_row_534 :: parse_row where
  "ts_parse_row_534 =
    [(sym_ERR_assign_func_call, 7530), (sym_ERR_unexpected_this_in_path, 2372),
     (sym_ERR_unexpected_super_in_path, 2372), (sym_ERR_fb_variables_after_method, 1451),
     (sym_ERR_var_access_not_allowed, 3160), (sym_ERR_var_config_not_allowed, 3160),
     (sym_ERR_var_global_not_allowed, 3160), (sym_ERR_method_decl_in_body, 3150),
     (sym_extern_pragma, 7490), (sym_wasm_pragma, 3150), (sym_warn_pragma, 7490),
     (sym_allow_pragma, 3140), (sym_test_pragma, 7490), (sym_once_pragma, 7490),
     (sym_must_call_pragma, 7490), (sym_export_pragma, 7490), (sym_pou_pragma, 7194),
     (sym_direct_variable, 7675), (sym_deref_expression, 2373), (sym_variable, 7599),
     (sym_var_access, 2373), (sym_in_out_decls, 3160), (sym_var_decls, 3160),
     (sym_retain_var_decls, 3160), (sym_temp_var_decls, 3160), (sym_external_var_decls, 3160),
     (sym_global_var_decls, 2947), (sym_loc_partly_var_decl, 3160), (sym__fb_variables, 2347),
     (sym_fb_input_decls, 3160), (sym_fb_output_decls, 3160), (sym_no_retain_var_decls, 3160),
     (sym_fb_body, 10088), (sym_method_decl, 662), (sym_prog_access_decls, 3043), (sym_SFC, 7970),
     (sym_SFC_network, 7612), (sym_initial_step, 7439), (sym_config_init, 3047),
     (sym_variable_access, 7530), (sym_func_call, 2961), (sym_stmt_list, 7970), (sym__stmt, 2024),
     (sym_assign, 3150), (sym_if_stmt, 3150), (sym_case_stmt, 3150), (sym_for_stmt, 3150),
     (sym_while_stmt, 3150), (sym_repeat_stmt, 3150), (sym_raise_stmt, 3150), (sym_try_stmt, 3150),
     (sym_ERR_clause_outside_try, 3150), (sym_begin_path_expression, 2943), (sym_invocation, 2934),
     (sym_any_invocation, 2935), (sym_this_invocation, 2641), (sym_super_invocation, 2641),
     (sym_super_body_invocation, 2935), (sym_path_expression, 2627), (sym_field_expression, 2373),
     (sym_index_expression, 2373), (sym_ladder_diagram, 7970), (sym_fb_diagram, 7970),
     (aux_sym_ERR_fb_variables_after_method_repeat1, 2347), (aux_sym_func_decl_repeat1, 7194),
     (aux_sym_fb_decl_repeat3, 662), (aux_sym_SFC_repeat1, 7612), (aux_sym_stmt_list_repeat1, 2024),
     (aux_sym_ladder_diagram_repeat1, 8009), (aux_sym_fb_diagram_repeat1, 8013),
     (sym_identifier, 298), (aux_sym_ERR_unexpected_this_in_path_token1, 304),
     (aux_sym_ERR_unexpected_super_in_path_token1, 306), (sym_line_comment, 3),
     (anon_sym_LBRACE, 308), (aux_sym_test_pragma_token1, 9), (aux_sym_once_pragma_token1, 11),
     (aux_sym_must_call_pragma_token1, 13), (aux_sym_export_pragma_token1, 15),
     (anon_sym_SEMI, 310), (anon_sym_PERCENT, 312), (aux_sym_input_decls_token1, 314),
     (aux_sym_output_decls_token1, 316), (aux_sym_in_out_decls_token1, 318),
     (aux_sym_var_decls_token1, 320), (aux_sym_temp_var_decls_token1, 322),
     (aux_sym_external_var_decls_token1, 324), (aux_sym_global_var_decls_token1, 326),
     (aux_sym_fb_decl_token4, 1398), (aux_sym_method_decl_token1, 330),
     (aux_sym_prog_access_decls_token1, 332), (aux_sym_initial_step_token1, 334),
     (aux_sym_config_init_token1, 336), (aux_sym__stmt_token1, 340), (aux_sym__stmt_token2, 340),
     (aux_sym__stmt_token3, 340), (aux_sym_if_stmt_token1, 342), (aux_sym_case_stmt_token1, 344),
     (aux_sym_for_stmt_token1, 346), (aux_sym_while_stmt_token1, 348),
     (aux_sym_repeat_stmt_token1, 350), (aux_sym_raise_stmt_token1, 352),
     (aux_sym_try_stmt_token1, 354), (aux_sym_try_stmt_token2, 356),
     (aux_sym_catch_clause_token1, 356), (aux_sym_finally_clause_token1, 356), (sym_ld_rung, 358),
     (sym_fbd_network, 360), (sym_c_style_comment, 3), (sym_pascal_style_comment, 3),
     (sym_pragma, 3)]"

lemma ts_parse_row_534_scan: "row_scan tokens_63_2 0 ts_parse_row_534 = Some (Suc (Suc (Suc (Suc 0))))"
  unfolding ts_parse_row_534_def by simp

text \<open>Lines 115664 to 115776.\<close>

definition ts_parse_row_535 :: parse_row where
  "ts_parse_row_535 =
    [(sym_ERR_assign_func_call, 7530), (sym_ERR_unexpected_this_in_path, 2372),
     (sym_ERR_unexpected_super_in_path, 2372), (sym_ERR_fb_variables_after_method, 1655),
     (sym_ERR_var_access_not_allowed, 3160), (sym_ERR_var_config_not_allowed, 3160),
     (sym_ERR_var_global_not_allowed, 3160), (sym_ERR_method_decl_in_body, 3150),
     (sym_extern_pragma, 7490), (sym_wasm_pragma, 3150), (sym_warn_pragma, 7490),
     (sym_allow_pragma, 3140), (sym_test_pragma, 7490), (sym_once_pragma, 7490),
     (sym_must_call_pragma, 7490), (sym_export_pragma, 7490), (sym_pou_pragma, 7194),
     (sym_direct_variable, 7675), (sym_deref_expression, 2373), (sym_variable, 7599),
     (sym_var_access, 2373), (sym_in_out_decls, 3160), (sym_var_decls, 3160),
     (sym_retain_var_decls, 3160), (sym_temp_var_decls, 3160), (sym_external_var_decls, 3160),
     (sym_global_var_decls, 2947), (sym_loc_partly_var_decl, 3160), (sym__fb_variables, 2347),
     (sym_fb_input_decls, 3160), (sym_fb_output_decls, 3160), (sym_no_retain_var_decls, 3160),
     (sym_fb_body, 8929), (sym_method_decl, 355), (sym_prog_access_decls, 3043), (sym_SFC, 7970),
     (sym_SFC_network, 7612), (sym_initial_step, 7439), (sym_config_init, 3047),
     (sym_variable_access, 7530), (sym_func_call, 2961), (sym_stmt_list, 7970), (sym__stmt, 2024),
     (sym_assign, 3150), (sym_if_stmt, 3150), (sym_case_stmt, 3150), (sym_for_stmt, 3150),
     (sym_while_stmt, 3150), (sym_repeat_stmt, 3150), (sym_raise_stmt, 3150), (sym_try_stmt, 3150),
     (sym_ERR_clause_outside_try, 3150), (sym_begin_path_expression, 2943), (sym_invocation, 2934),
     (sym_any_invocation, 2935), (sym_this_invocation, 2641), (sym_super_invocation, 2641),
     (sym_super_body_invocation, 2935), (sym_path_expression, 2627), (sym_field_expression, 2373),
     (sym_index_expression, 2373), (sym_ladder_diagram, 7970), (sym_fb_diagram, 7970),
     (aux_sym_ERR_fb_variables_after_method_repeat1, 2347), (aux_sym_func_decl_repeat1, 7194),
     (aux_sym_fb_decl_repeat3, 355), (aux_sym_SFC_repeat1, 7612), (aux_sym_stmt_list_repeat1, 2024),
     (aux_sym_ladder_diagram_repeat1, 8009), (aux_sym_fb_diagram_repeat1, 8013),
     (sym_identifier, 298), (aux_sym_ERR_unexpected_this_in_path_token1, 304),
     (aux_sym_ERR_unexpected_super_in_path_token1, 306), (sym_line_comment, 3),
     (anon_sym_LBRACE, 308), (aux_sym_test_pragma_token1, 9), (aux_sym_once_pragma_token1, 11),
     (aux_sym_must_call_pragma_token1, 13), (aux_sym_export_pragma_token1, 15),
     (anon_sym_SEMI, 310), (anon_sym_PERCENT, 312), (aux_sym_input_decls_token1, 314),
     (aux_sym_output_decls_token1, 316), (aux_sym_in_out_decls_token1, 318),
     (aux_sym_var_decls_token1, 320), (aux_sym_temp_var_decls_token1, 322),
     (aux_sym_external_var_decls_token1, 324), (aux_sym_global_var_decls_token1, 326),
     (aux_sym_fb_decl_token4, 1400), (aux_sym_method_decl_token1, 330),
     (aux_sym_prog_access_decls_token1, 332), (aux_sym_initial_step_token1, 334),
     (aux_sym_config_init_token1, 336), (aux_sym__stmt_token1, 340), (aux_sym__stmt_token2, 340),
     (aux_sym__stmt_token3, 340), (aux_sym_if_stmt_token1, 342), (aux_sym_case_stmt_token1, 344),
     (aux_sym_for_stmt_token1, 346), (aux_sym_while_stmt_token1, 348),
     (aux_sym_repeat_stmt_token1, 350), (aux_sym_raise_stmt_token1, 352),
     (aux_sym_try_stmt_token1, 354), (aux_sym_try_stmt_token2, 356),
     (aux_sym_catch_clause_token1, 356), (aux_sym_finally_clause_token1, 356), (sym_ld_rung, 358),
     (sym_fbd_network, 360), (sym_c_style_comment, 3), (sym_pascal_style_comment, 3),
     (sym_pragma, 3)]"

lemma ts_parse_row_535_scan: "row_scan tokens_63_2 0 ts_parse_row_535 = Some (Suc (Suc (Suc (Suc 0))))"
  unfolding ts_parse_row_535_def by simp

text \<open>Lines 115777 to 115889.\<close>

definition ts_parse_row_536 :: parse_row where
  "ts_parse_row_536 =
    [(sym_ERR_assign_func_call, 7530), (sym_ERR_unexpected_this_in_path, 2372),
     (sym_ERR_unexpected_super_in_path, 2372), (sym_ERR_fb_variables_after_method, 1245),
     (sym_ERR_var_access_not_allowed, 3160), (sym_ERR_var_config_not_allowed, 3160),
     (sym_ERR_var_global_not_allowed, 3160), (sym_ERR_method_decl_in_body, 3150),
     (sym_extern_pragma, 7490), (sym_wasm_pragma, 3150), (sym_warn_pragma, 7490),
     (sym_allow_pragma, 3140), (sym_test_pragma, 7490), (sym_once_pragma, 7490),
     (sym_must_call_pragma, 7490), (sym_export_pragma, 7490), (sym_pou_pragma, 7194),
     (sym_direct_variable, 7675), (sym_deref_expression, 2373), (sym_variable, 7599),
     (sym_var_access, 2373), (sym_in_out_decls, 3160), (sym_var_decls, 3160),
     (sym_retain_var_decls, 3160), (sym_temp_var_decls, 3160), (sym_external_var_decls, 3160),
     (sym_global_var_decls, 2947), (sym_loc_partly_var_decl, 3160), (sym__fb_variables, 2347),
     (sym_fb_input_decls, 3160), (sym_fb_output_decls, 3160), (sym_no_retain_var_decls, 3160),
     (sym_fb_body, 9549), (sym_method_decl, 592), (sym_prog_access_decls, 3043), (sym_SFC, 7970),
     (sym_SFC_network, 7612), (sym_initial_step, 7439), (sym_config_init, 3047),
     (sym_variable_access, 7530), (sym_func_call, 2961), (sym_stmt_list, 7970), (sym__stmt, 2024),
     (sym_assign, 3150), (sym_if_stmt, 3150), (sym_case_stmt, 3150), (sym_for_stmt, 3150),
     (sym_while_stmt, 3150), (sym_repeat_stmt, 3150), (sym_raise_stmt, 3150), (sym_try_stmt, 3150),
     (sym_ERR_clause_outside_try, 3150), (sym_begin_path_expression, 2943), (sym_invocation, 2934),
     (sym_any_invocation, 2935), (sym_this_invocation, 2641), (sym_super_invocation, 2641),
     (sym_super_body_invocation, 2935), (sym_path_expression, 2627), (sym_field_expression, 2373),
     (sym_index_expression, 2373), (sym_ladder_diagram, 7970), (sym_fb_diagram, 7970),
     (aux_sym_ERR_fb_variables_after_method_repeat1, 2347), (aux_sym_func_decl_repeat1, 7194),
     (aux_sym_fb_decl_repeat3, 592), (aux_sym_SFC_repeat1, 7612), (aux_sym_stmt_list_repeat1, 2024),
     (aux_sym_ladder_diagram_repeat1, 8009), (aux_sym_fb_diagram_repeat1, 8013),
     (sym_identifier, 298), (aux_sym_ERR_unexpected_this_in_path_token1, 304),
     (aux_sym_ERR_unexpected_super_in_path_token1, 306), (sym_line_comment, 3),
     (anon_sym_LBRACE, 308), (aux_sym_test_pragma_token1, 9), (aux_sym_once_pragma_token1, 11),
     (aux_sym_must_call_pragma_token1, 13), (aux_sym_export_pragma_token1, 15),
     (anon_sym_SEMI, 310), (anon_sym_PERCENT, 312), (aux_sym_input_decls_token1, 314),
     (aux_sym_output_decls_token1, 316), (aux_sym_in_out_decls_token1, 318),
     (aux_sym_var_decls_token1, 320), (aux_sym_temp_var_decls_token1, 322),
     (aux_sym_external_var_decls_token1, 324), (aux_sym_global_var_decls_token1, 326),
     (aux_sym_fb_decl_token4, 1402), (aux_sym_method_decl_token1, 330),
     (aux_sym_prog_access_decls_token1, 332), (aux_sym_initial_step_token1, 334),
     (aux_sym_config_init_token1, 336), (aux_sym__stmt_token1, 340), (aux_sym__stmt_token2, 340),
     (aux_sym__stmt_token3, 340), (aux_sym_if_stmt_token1, 342), (aux_sym_case_stmt_token1, 344),
     (aux_sym_for_stmt_token1, 346), (aux_sym_while_stmt_token1, 348),
     (aux_sym_repeat_stmt_token1, 350), (aux_sym_raise_stmt_token1, 352),
     (aux_sym_try_stmt_token1, 354), (aux_sym_try_stmt_token2, 356),
     (aux_sym_catch_clause_token1, 356), (aux_sym_finally_clause_token1, 356), (sym_ld_rung, 358),
     (sym_fbd_network, 360), (sym_c_style_comment, 3), (sym_pascal_style_comment, 3),
     (sym_pragma, 3)]"

lemma ts_parse_row_536_scan: "row_scan tokens_63_2 0 ts_parse_row_536 = Some (Suc (Suc (Suc (Suc 0))))"
  unfolding ts_parse_row_536_def by simp

text \<open>Lines 115890 to 116002.\<close>

definition ts_parse_row_537 :: parse_row where
  "ts_parse_row_537 =
    [(sym_ERR_assign_func_call, 7530), (sym_ERR_unexpected_this_in_path, 2372),
     (sym_ERR_unexpected_super_in_path, 2372), (sym_ERR_fb_variables_after_method, 1456),
     (sym_ERR_var_access_not_allowed, 3160), (sym_ERR_var_config_not_allowed, 3160),
     (sym_ERR_var_global_not_allowed, 3160), (sym_ERR_method_decl_in_body, 3150),
     (sym_extern_pragma, 7490), (sym_wasm_pragma, 3150), (sym_warn_pragma, 7490),
     (sym_allow_pragma, 3140), (sym_test_pragma, 7490), (sym_once_pragma, 7490),
     (sym_must_call_pragma, 7490), (sym_export_pragma, 7490), (sym_pou_pragma, 7194),
     (sym_direct_variable, 7675), (sym_deref_expression, 2373), (sym_variable, 7599),
     (sym_var_access, 2373), (sym_in_out_decls, 3160), (sym_var_decls, 3160),
     (sym_retain_var_decls, 3160), (sym_temp_var_decls, 3160), (sym_external_var_decls, 3160),
     (sym_global_var_decls, 2947), (sym_loc_partly_var_decl, 3160), (sym__fb_variables, 2343),
     (sym_fb_input_decls, 3160), (sym_fb_output_decls, 3160), (sym_no_retain_var_decls, 3160),
     (sym_fb_body, 10131), (sym_method_decl, 2549), (sym_prog_access_decls, 3043), (sym_SFC, 7970),
     (sym_SFC_network, 7612), (sym_initial_step, 7439), (sym_config_init, 3047),
     (sym_variable_access, 7530), (sym_func_call, 2961), (sym_stmt_list, 7970), (sym__stmt, 2024),
     (sym_assign, 3150), (sym_if_stmt, 3150), (sym_case_stmt, 3150), (sym_for_stmt, 3150),
     (sym_while_stmt, 3150), (sym_repeat_stmt, 3150), (sym_raise_stmt, 3150), (sym_try_stmt, 3150),
     (sym_ERR_clause_outside_try, 3150), (sym_begin_path_expression, 2943), (sym_invocation, 2934),
     (sym_any_invocation, 2935), (sym_this_invocation, 2641), (sym_super_invocation, 2641),
     (sym_super_body_invocation, 2935), (sym_path_expression, 2627), (sym_field_expression, 2373),
     (sym_index_expression, 2373), (sym_ladder_diagram, 7970), (sym_fb_diagram, 7970),
     (aux_sym_ERR_fb_variables_after_method_repeat1, 2343), (aux_sym_func_decl_repeat1, 7194),
     (aux_sym_fb_decl_repeat3, 2549), (aux_sym_SFC_repeat1, 7612),
     (aux_sym_stmt_list_repeat1, 2024), (aux_sym_ladder_diagram_repeat1, 8009),
     (aux_sym_fb_diagram_repeat1, 8013), (sym_identifier, 298),
     (aux_sym_ERR_unexpected_this_in_path_token1, 304),
     (aux_sym_ERR_unexpected_super_in_path_token1, 306), (sym_line_comment, 3),
     (anon_sym_LBRACE, 308), (aux_sym_test_pragma_token1, 9), (aux_sym_once_pragma_token1, 11),
     (aux_sym_must_call_pragma_token1, 13), (aux_sym_export_pragma_token1, 15),
     (anon_sym_SEMI, 310), (anon_sym_PERCENT, 312), (aux_sym_input_decls_token1, 314),
     (aux_sym_output_decls_token1, 316), (aux_sym_in_out_decls_token1, 318),
     (aux_sym_var_decls_token1, 320), (aux_sym_temp_var_decls_token1, 322),
     (aux_sym_external_var_decls_token1, 324), (aux_sym_global_var_decls_token1, 326),
     (aux_sym_fb_decl_token4, 1404), (aux_sym_method_decl_token1, 330),
     (aux_sym_prog_access_decls_token1, 332), (aux_sym_initial_step_token1, 334),
     (aux_sym_config_init_token1, 336), (aux_sym__stmt_token1, 340), (aux_sym__stmt_token2, 340),
     (aux_sym__stmt_token3, 340), (aux_sym_if_stmt_token1, 342), (aux_sym_case_stmt_token1, 344),
     (aux_sym_for_stmt_token1, 346), (aux_sym_while_stmt_token1, 348),
     (aux_sym_repeat_stmt_token1, 350), (aux_sym_raise_stmt_token1, 352),
     (aux_sym_try_stmt_token1, 354), (aux_sym_try_stmt_token2, 356),
     (aux_sym_catch_clause_token1, 356), (aux_sym_finally_clause_token1, 356), (sym_ld_rung, 358),
     (sym_fbd_network, 360), (sym_c_style_comment, 3), (sym_pascal_style_comment, 3),
     (sym_pragma, 3)]"

lemma ts_parse_row_537_scan: "row_scan tokens_63_2 0 ts_parse_row_537 = Some (Suc (Suc (Suc (Suc 0))))"
  unfolding ts_parse_row_537_def by simp

text \<open>Lines 116003 to 116115.\<close>

definition ts_parse_row_538 :: parse_row where
  "ts_parse_row_538 =
    [(sym_ERR_assign_func_call, 7530), (sym_ERR_unexpected_this_in_path, 2372),
     (sym_ERR_unexpected_super_in_path, 2372), (sym_ERR_fb_variables_after_method, 1457),
     (sym_ERR_var_access_not_allowed, 3160), (sym_ERR_var_config_not_allowed, 3160),
     (sym_ERR_var_global_not_allowed, 3160), (sym_ERR_method_decl_in_body, 3150),
     (sym_extern_pragma, 7490), (sym_wasm_pragma, 3150), (sym_warn_pragma, 7490),
     (sym_allow_pragma, 3140), (sym_test_pragma, 7490), (sym_once_pragma, 7490),
     (sym_must_call_pragma, 7490), (sym_export_pragma, 7490), (sym_pou_pragma, 7194),
     (sym_direct_variable, 7675), (sym_deref_expression, 2373), (sym_variable, 7599),
     (sym_var_access, 2373), (sym_in_out_decls, 3160), (sym_var_decls, 3160),
     (sym_retain_var_decls, 3160), (sym_temp_var_decls, 3160), (sym_external_var_decls, 3160),
     (sym_global_var_decls, 2947), (sym_loc_partly_var_decl, 3160), (sym__fb_variables, 2343),
     (sym_fb_input_decls, 3160), (sym_fb_output_decls, 3160), (sym_no_retain_var_decls, 3160),
     (sym_fb_body, 10263), (sym_method_decl, 2549), (sym_prog_access_decls, 3043), (sym_SFC, 7970),
     (sym_SFC_network, 7612), (sym_initial_step, 7439), (sym_config_init, 3047),
     (sym_variable_access, 7530), (sym_func_call, 2961), (sym_stmt_list, 7970), (sym__stmt, 2024),
     (sym_assign, 3150), (sym_if_stmt, 3150), (sym_case_stmt, 3150), (sym_for_stmt, 3150),
     (sym_while_stmt, 3150), (sym_repeat_stmt, 3150), (sym_raise_stmt, 3150), (sym_try_stmt, 3150),
     (sym_ERR_clause_outside_try, 3150), (sym_begin_path_expression, 2943), (sym_invocation, 2934),
     (sym_any_invocation, 2935), (sym_this_invocation, 2641), (sym_super_invocation, 2641),
     (sym_super_body_invocation, 2935), (sym_path_expression, 2627), (sym_field_expression, 2373),
     (sym_index_expression, 2373), (sym_ladder_diagram, 7970), (sym_fb_diagram, 7970),
     (aux_sym_ERR_fb_variables_after_method_repeat1, 2343), (aux_sym_func_decl_repeat1, 7194),
     (aux_sym_fb_decl_repeat3, 2549), (aux_sym_SFC_repeat1, 7612),
     (aux_sym_stmt_list_repeat1, 2024), (aux_sym_ladder_diagram_repeat1, 8009),
     (aux_sym_fb_diagram_repeat1, 8013), (sym_identifier, 298),
     (aux_sym_ERR_unexpected_this_in_path_token1, 304),
     (aux_sym_ERR_unexpected_super_in_path_token1, 306), (sym_line_comment, 3),
     (anon_sym_LBRACE, 308), (aux_sym_test_pragma_token1, 9), (aux_sym_once_pragma_token1, 11),
     (aux_sym_must_call_pragma_token1, 13), (aux_sym_export_pragma_token1, 15),
     (anon_sym_SEMI, 310), (anon_sym_PERCENT, 312), (aux_sym_input_decls_token1, 314),
     (aux_sym_output_decls_token1, 316), (aux_sym_in_out_decls_token1, 318),
     (aux_sym_var_decls_token1, 320), (aux_sym_temp_var_decls_token1, 322),
     (aux_sym_external_var_decls_token1, 324), (aux_sym_global_var_decls_token1, 326),
     (aux_sym_fb_decl_token4, 1406), (aux_sym_method_decl_token1, 330),
     (aux_sym_prog_access_decls_token1, 332), (aux_sym_initial_step_token1, 334),
     (aux_sym_config_init_token1, 336), (aux_sym__stmt_token1, 340), (aux_sym__stmt_token2, 340),
     (aux_sym__stmt_token3, 340), (aux_sym_if_stmt_token1, 342), (aux_sym_case_stmt_token1, 344),
     (aux_sym_for_stmt_token1, 346), (aux_sym_while_stmt_token1, 348),
     (aux_sym_repeat_stmt_token1, 350), (aux_sym_raise_stmt_token1, 352),
     (aux_sym_try_stmt_token1, 354), (aux_sym_try_stmt_token2, 356),
     (aux_sym_catch_clause_token1, 356), (aux_sym_finally_clause_token1, 356), (sym_ld_rung, 358),
     (sym_fbd_network, 360), (sym_c_style_comment, 3), (sym_pascal_style_comment, 3),
     (sym_pragma, 3)]"

lemma ts_parse_row_538_scan: "row_scan tokens_63_2 0 ts_parse_row_538 = Some (Suc (Suc (Suc (Suc 0))))"
  unfolding ts_parse_row_538_def by simp

text \<open>Lines 116116 to 116228.\<close>

definition ts_parse_row_539 :: parse_row where
  "ts_parse_row_539 =
    [(sym_ERR_assign_func_call, 7530), (sym_ERR_unexpected_this_in_path, 2372),
     (sym_ERR_unexpected_super_in_path, 2372), (sym_ERR_fb_variables_after_method, 1458),
     (sym_ERR_var_access_not_allowed, 3160), (sym_ERR_var_config_not_allowed, 3160),
     (sym_ERR_var_global_not_allowed, 3160), (sym_ERR_method_decl_in_body, 3150),
     (sym_extern_pragma, 7490), (sym_wasm_pragma, 3150), (sym_warn_pragma, 7490),
     (sym_allow_pragma, 3140), (sym_test_pragma, 7490), (sym_once_pragma, 7490),
     (sym_must_call_pragma, 7490), (sym_export_pragma, 7490), (sym_pou_pragma, 7194),
     (sym_direct_variable, 7675), (sym_deref_expression, 2373), (sym_variable, 7599),
     (sym_var_access, 2373), (sym_in_out_decls, 3160), (sym_var_decls, 3160),
     (sym_retain_var_decls, 3160), (sym_temp_var_decls, 3160), (sym_external_var_decls, 3160),
     (sym_global_var_decls, 2947), (sym_loc_partly_var_decl, 3160), (sym__fb_variables, 2343),
     (sym_fb_input_decls, 3160), (sym_fb_output_decls, 3160), (sym_no_retain_var_decls, 3160),
     (sym_fb_body, 10278), (sym_method_decl, 2549), (sym_prog_access_decls, 3043), (sym_SFC, 7970),
     (sym_SFC_network, 7612), (sym_initial_step, 7439), (sym_config_init, 3047),
     (sym_variable_access, 7530), (sym_func_call, 2961), (sym_stmt_list, 7970), (sym__stmt, 2024),
     (sym_assign, 3150), (sym_if_stmt, 3150), (sym_case_stmt, 3150), (sym_for_stmt, 3150),
     (sym_while_stmt, 3150), (sym_repeat_stmt, 3150), (sym_raise_stmt, 3150), (sym_try_stmt, 3150),
     (sym_ERR_clause_outside_try, 3150), (sym_begin_path_expression, 2943), (sym_invocation, 2934),
     (sym_any_invocation, 2935), (sym_this_invocation, 2641), (sym_super_invocation, 2641),
     (sym_super_body_invocation, 2935), (sym_path_expression, 2627), (sym_field_expression, 2373),
     (sym_index_expression, 2373), (sym_ladder_diagram, 7970), (sym_fb_diagram, 7970),
     (aux_sym_ERR_fb_variables_after_method_repeat1, 2343), (aux_sym_func_decl_repeat1, 7194),
     (aux_sym_fb_decl_repeat3, 2549), (aux_sym_SFC_repeat1, 7612),
     (aux_sym_stmt_list_repeat1, 2024), (aux_sym_ladder_diagram_repeat1, 8009),
     (aux_sym_fb_diagram_repeat1, 8013), (sym_identifier, 298),
     (aux_sym_ERR_unexpected_this_in_path_token1, 304),
     (aux_sym_ERR_unexpected_super_in_path_token1, 306), (sym_line_comment, 3),
     (anon_sym_LBRACE, 308), (aux_sym_test_pragma_token1, 9), (aux_sym_once_pragma_token1, 11),
     (aux_sym_must_call_pragma_token1, 13), (aux_sym_export_pragma_token1, 15),
     (anon_sym_SEMI, 310), (anon_sym_PERCENT, 312), (aux_sym_input_decls_token1, 314),
     (aux_sym_output_decls_token1, 316), (aux_sym_in_out_decls_token1, 318),
     (aux_sym_var_decls_token1, 320), (aux_sym_temp_var_decls_token1, 322),
     (aux_sym_external_var_decls_token1, 324), (aux_sym_global_var_decls_token1, 326),
     (aux_sym_fb_decl_token4, 1408), (aux_sym_method_decl_token1, 330),
     (aux_sym_prog_access_decls_token1, 332), (aux_sym_initial_step_token1, 334),
     (aux_sym_config_init_token1, 336), (aux_sym__stmt_token1, 340), (aux_sym__stmt_token2, 340),
     (aux_sym__stmt_token3, 340), (aux_sym_if_stmt_token1, 342), (aux_sym_case_stmt_token1, 344),
     (aux_sym_for_stmt_token1, 346), (aux_sym_while_stmt_token1, 348),
     (aux_sym_repeat_stmt_token1, 350), (aux_sym_raise_stmt_token1, 352),
     (aux_sym_try_stmt_token1, 354), (aux_sym_try_stmt_token2, 356),
     (aux_sym_catch_clause_token1, 356), (aux_sym_finally_clause_token1, 356), (sym_ld_rung, 358),
     (sym_fbd_network, 360), (sym_c_style_comment, 3), (sym_pascal_style_comment, 3),
     (sym_pragma, 3)]"

lemma ts_parse_row_539_scan: "row_scan tokens_63_2 0 ts_parse_row_539 = Some (Suc (Suc (Suc (Suc 0))))"
  unfolding ts_parse_row_539_def by simp

text \<open>Lines 116229 to 116341.\<close>

definition ts_parse_row_540 :: parse_row where
  "ts_parse_row_540 =
    [(sym_ERR_assign_func_call, 7530), (sym_ERR_unexpected_this_in_path, 2372),
     (sym_ERR_unexpected_super_in_path, 2372), (sym_ERR_fb_variables_after_method, 1459),
     (sym_ERR_var_access_not_allowed, 3160), (sym_ERR_var_config_not_allowed, 3160),
     (sym_ERR_var_global_not_allowed, 3160), (sym_ERR_method_decl_in_body, 3150),
     (sym_extern_pragma, 7490), (sym_wasm_pragma, 3150), (sym_warn_pragma, 7490),
     (sym_allow_pragma, 3140), (sym_test_pragma, 7490), (sym_once_pragma, 7490),
     (sym_must_call_pragma, 7490), (sym_export_pragma, 7490), (sym_pou_pragma, 7194),
     (sym_direct_variable, 7675), (sym_deref_expression, 2373), (sym_variable, 7599),
     (sym_var_access, 2373), (sym_in_out_decls, 3160), (sym_var_decls, 3160),
     (sym_retain_var_decls, 3160), (sym_temp_var_decls, 3160), (sym_external_var_decls, 3160),
     (sym_global_var_decls, 2947), (sym_loc_partly_var_decl, 3160), (sym__fb_variables, 2347),
     (sym_fb_input_decls, 3160), (sym_fb_output_decls, 3160), (sym_no_retain_var_decls, 3160),
     (sym_fb_body, 10290), (sym_method_decl, 668), (sym_prog_access_decls, 3043), (sym_SFC, 7970),
     (sym_SFC_network, 7612), (sym_initial_step, 7439), (sym_config_init, 3047),
     (sym_variable_access, 7530), (sym_func_call, 2961), (sym_stmt_list, 7970), (sym__stmt, 2024),
     (sym_assign, 3150), (sym_if_stmt, 3150), (sym_case_stmt, 3150), (sym_for_stmt, 3150),
     (sym_while_stmt, 3150), (sym_repeat_stmt, 3150), (sym_raise_stmt, 3150), (sym_try_stmt, 3150),
     (sym_ERR_clause_outside_try, 3150), (sym_begin_path_expression, 2943), (sym_invocation, 2934),
     (sym_any_invocation, 2935), (sym_this_invocation, 2641), (sym_super_invocation, 2641),
     (sym_super_body_invocation, 2935), (sym_path_expression, 2627), (sym_field_expression, 2373),
     (sym_index_expression, 2373), (sym_ladder_diagram, 7970), (sym_fb_diagram, 7970),
     (aux_sym_ERR_fb_variables_after_method_repeat1, 2347), (aux_sym_func_decl_repeat1, 7194),
     (aux_sym_fb_decl_repeat3, 668), (aux_sym_SFC_repeat1, 7612), (aux_sym_stmt_list_repeat1, 2024),
     (aux_sym_ladder_diagram_repeat1, 8009), (aux_sym_fb_diagram_repeat1, 8013),
     (sym_identifier, 298), (aux_sym_ERR_unexpected_this_in_path_token1, 304),
     (aux_sym_ERR_unexpected_super_in_path_token1, 306), (sym_line_comment, 3),
     (anon_sym_LBRACE, 308), (aux_sym_test_pragma_token1, 9), (aux_sym_once_pragma_token1, 11),
     (aux_sym_must_call_pragma_token1, 13), (aux_sym_export_pragma_token1, 15),
     (anon_sym_SEMI, 310), (anon_sym_PERCENT, 312), (aux_sym_input_decls_token1, 314),
     (aux_sym_output_decls_token1, 316), (aux_sym_in_out_decls_token1, 318),
     (aux_sym_var_decls_token1, 320), (aux_sym_temp_var_decls_token1, 322),
     (aux_sym_external_var_decls_token1, 324), (aux_sym_global_var_decls_token1, 326),
     (aux_sym_fb_decl_token4, 1410), (aux_sym_method_decl_token1, 330),
     (aux_sym_prog_access_decls_token1, 332), (aux_sym_initial_step_token1, 334),
     (aux_sym_config_init_token1, 336), (aux_sym__stmt_token1, 340), (aux_sym__stmt_token2, 340),
     (aux_sym__stmt_token3, 340), (aux_sym_if_stmt_token1, 342), (aux_sym_case_stmt_token1, 344),
     (aux_sym_for_stmt_token1, 346), (aux_sym_while_stmt_token1, 348),
     (aux_sym_repeat_stmt_token1, 350), (aux_sym_raise_stmt_token1, 352),
     (aux_sym_try_stmt_token1, 354), (aux_sym_try_stmt_token2, 356),
     (aux_sym_catch_clause_token1, 356), (aux_sym_finally_clause_token1, 356), (sym_ld_rung, 358),
     (sym_fbd_network, 360), (sym_c_style_comment, 3), (sym_pascal_style_comment, 3),
     (sym_pragma, 3)]"

lemma ts_parse_row_540_scan: "row_scan tokens_63_2 0 ts_parse_row_540 = Some (Suc (Suc (Suc (Suc 0))))"
  unfolding ts_parse_row_540_def by simp

text \<open>Lines 116342 to 116454.\<close>

definition ts_parse_row_541 :: parse_row where
  "ts_parse_row_541 =
    [(sym_ERR_assign_func_call, 7530), (sym_ERR_unexpected_this_in_path, 2372),
     (sym_ERR_unexpected_super_in_path, 2372), (sym_ERR_fb_variables_after_method, 1460),
     (sym_ERR_var_access_not_allowed, 3160), (sym_ERR_var_config_not_allowed, 3160),
     (sym_ERR_var_global_not_allowed, 3160), (sym_ERR_method_decl_in_body, 3150),
     (sym_extern_pragma, 7490), (sym_wasm_pragma, 3150), (sym_warn_pragma, 7490),
     (sym_allow_pragma, 3140), (sym_test_pragma, 7490), (sym_once_pragma, 7490),
     (sym_must_call_pragma, 7490), (sym_export_pragma, 7490), (sym_pou_pragma, 7194),
     (sym_direct_variable, 7675), (sym_deref_expression, 2373), (sym_variable, 7599),
     (sym_var_access, 2373), (sym_in_out_decls, 3160), (sym_var_decls, 3160),
     (sym_retain_var_decls, 3160), (sym_temp_var_decls, 3160), (sym_external_var_decls, 3160),
     (sym_global_var_decls, 2947), (sym_loc_partly_var_decl, 3160), (sym__fb_variables, 2343),
     (sym_fb_input_decls, 3160), (sym_fb_output_decls, 3160), (sym_no_retain_var_decls, 3160),
     (sym_fb_body, 10299), (sym_method_decl, 2549), (sym_prog_access_decls, 3043), (sym_SFC, 7970),
     (sym_SFC_network, 7612), (sym_initial_step, 7439), (sym_config_init, 3047),
     (sym_variable_access, 7530), (sym_func_call, 2961), (sym_stmt_list, 7970), (sym__stmt, 2024),
     (sym_assign, 3150), (sym_if_stmt, 3150), (sym_case_stmt, 3150), (sym_for_stmt, 3150),
     (sym_while_stmt, 3150), (sym_repeat_stmt, 3150), (sym_raise_stmt, 3150), (sym_try_stmt, 3150),
     (sym_ERR_clause_outside_try, 3150), (sym_begin_path_expression, 2943), (sym_invocation, 2934),
     (sym_any_invocation, 2935), (sym_this_invocation, 2641), (sym_super_invocation, 2641),
     (sym_super_body_invocation, 2935), (sym_path_expression, 2627), (sym_field_expression, 2373),
     (sym_index_expression, 2373), (sym_ladder_diagram, 7970), (sym_fb_diagram, 7970),
     (aux_sym_ERR_fb_variables_after_method_repeat1, 2343), (aux_sym_func_decl_repeat1, 7194),
     (aux_sym_fb_decl_repeat3, 2549), (aux_sym_SFC_repeat1, 7612),
     (aux_sym_stmt_list_repeat1, 2024), (aux_sym_ladder_diagram_repeat1, 8009),
     (aux_sym_fb_diagram_repeat1, 8013), (sym_identifier, 298),
     (aux_sym_ERR_unexpected_this_in_path_token1, 304),
     (aux_sym_ERR_unexpected_super_in_path_token1, 306), (sym_line_comment, 3),
     (anon_sym_LBRACE, 308), (aux_sym_test_pragma_token1, 9), (aux_sym_once_pragma_token1, 11),
     (aux_sym_must_call_pragma_token1, 13), (aux_sym_export_pragma_token1, 15),
     (anon_sym_SEMI, 310), (anon_sym_PERCENT, 312), (aux_sym_input_decls_token1, 314),
     (aux_sym_output_decls_token1, 316), (aux_sym_in_out_decls_token1, 318),
     (aux_sym_var_decls_token1, 320), (aux_sym_temp_var_decls_token1, 322),
     (aux_sym_external_var_decls_token1, 324), (aux_sym_global_var_decls_token1, 326),
     (aux_sym_fb_decl_token4, 1412), (aux_sym_method_decl_token1, 330),
     (aux_sym_prog_access_decls_token1, 332), (aux_sym_initial_step_token1, 334),
     (aux_sym_config_init_token1, 336), (aux_sym__stmt_token1, 340), (aux_sym__stmt_token2, 340),
     (aux_sym__stmt_token3, 340), (aux_sym_if_stmt_token1, 342), (aux_sym_case_stmt_token1, 344),
     (aux_sym_for_stmt_token1, 346), (aux_sym_while_stmt_token1, 348),
     (aux_sym_repeat_stmt_token1, 350), (aux_sym_raise_stmt_token1, 352),
     (aux_sym_try_stmt_token1, 354), (aux_sym_try_stmt_token2, 356),
     (aux_sym_catch_clause_token1, 356), (aux_sym_finally_clause_token1, 356), (sym_ld_rung, 358),
     (sym_fbd_network, 360), (sym_c_style_comment, 3), (sym_pascal_style_comment, 3),
     (sym_pragma, 3)]"

lemma ts_parse_row_541_scan: "row_scan tokens_63_2 0 ts_parse_row_541 = Some (Suc (Suc (Suc (Suc 0))))"
  unfolding ts_parse_row_541_def by simp

text \<open>Lines 116455 to 116567.\<close>

definition ts_parse_row_542 :: parse_row where
  "ts_parse_row_542 =
    [(sym_ERR_assign_func_call, 7530), (sym_ERR_unexpected_this_in_path, 2372),
     (sym_ERR_unexpected_super_in_path, 2372), (sym_ERR_fb_variables_after_method, 1461),
     (sym_ERR_var_access_not_allowed, 3160), (sym_ERR_var_config_not_allowed, 3160),
     (sym_ERR_var_global_not_allowed, 3160), (sym_ERR_method_decl_in_body, 3150),
     (sym_extern_pragma, 7490), (sym_wasm_pragma, 3150), (sym_warn_pragma, 7490),
     (sym_allow_pragma, 3140), (sym_test_pragma, 7490), (sym_once_pragma, 7490),
     (sym_must_call_pragma, 7490), (sym_export_pragma, 7490), (sym_pou_pragma, 7194),
     (sym_direct_variable, 7675), (sym_deref_expression, 2373), (sym_variable, 7599),
     (sym_var_access, 2373), (sym_in_out_decls, 3160), (sym_var_decls, 3160),
     (sym_retain_var_decls, 3160), (sym_temp_var_decls, 3160), (sym_external_var_decls, 3160),
     (sym_global_var_decls, 2947), (sym_loc_partly_var_decl, 3160), (sym__fb_variables, 2343),
     (sym_fb_input_decls, 3160), (sym_fb_output_decls, 3160), (sym_no_retain_var_decls, 3160),
     (sym_fb_body, 10437), (sym_method_decl, 2549), (sym_prog_access_decls, 3043), (sym_SFC, 7970),
     (sym_SFC_network, 7612), (sym_initial_step, 7439), (sym_config_init, 3047),
     (sym_variable_access, 7530), (sym_func_call, 2961), (sym_stmt_list, 7970), (sym__stmt, 2024),
     (sym_assign, 3150), (sym_if_stmt, 3150), (sym_case_stmt, 3150), (sym_for_stmt, 3150),
     (sym_while_stmt, 3150), (sym_repeat_stmt, 3150), (sym_raise_stmt, 3150), (sym_try_stmt, 3150),
     (sym_ERR_clause_outside_try, 3150), (sym_begin_path_expression, 2943), (sym_invocation, 2934),
     (sym_any_invocation, 2935), (sym_this_invocation, 2641), (sym_super_invocation, 2641),
     (sym_super_body_invocation, 2935), (sym_path_expression, 2627), (sym_field_expression, 2373),
     (sym_index_expression, 2373), (sym_ladder_diagram, 7970), (sym_fb_diagram, 7970),
     (aux_sym_ERR_fb_variables_after_method_repeat1, 2343), (aux_sym_func_decl_repeat1, 7194),
     (aux_sym_fb_decl_repeat3, 2549), (aux_sym_SFC_repeat1, 7612),
     (aux_sym_stmt_list_repeat1, 2024), (aux_sym_ladder_diagram_repeat1, 8009),
     (aux_sym_fb_diagram_repeat1, 8013), (sym_identifier, 298),
     (aux_sym_ERR_unexpected_this_in_path_token1, 304),
     (aux_sym_ERR_unexpected_super_in_path_token1, 306), (sym_line_comment, 3),
     (anon_sym_LBRACE, 308), (aux_sym_test_pragma_token1, 9), (aux_sym_once_pragma_token1, 11),
     (aux_sym_must_call_pragma_token1, 13), (aux_sym_export_pragma_token1, 15),
     (anon_sym_SEMI, 310), (anon_sym_PERCENT, 312), (aux_sym_input_decls_token1, 314),
     (aux_sym_output_decls_token1, 316), (aux_sym_in_out_decls_token1, 318),
     (aux_sym_var_decls_token1, 320), (aux_sym_temp_var_decls_token1, 322),
     (aux_sym_external_var_decls_token1, 324), (aux_sym_global_var_decls_token1, 326),
     (aux_sym_fb_decl_token4, 1414), (aux_sym_method_decl_token1, 330),
     (aux_sym_prog_access_decls_token1, 332), (aux_sym_initial_step_token1, 334),
     (aux_sym_config_init_token1, 336), (aux_sym__stmt_token1, 340), (aux_sym__stmt_token2, 340),
     (aux_sym__stmt_token3, 340), (aux_sym_if_stmt_token1, 342), (aux_sym_case_stmt_token1, 344),
     (aux_sym_for_stmt_token1, 346), (aux_sym_while_stmt_token1, 348),
     (aux_sym_repeat_stmt_token1, 350), (aux_sym_raise_stmt_token1, 352),
     (aux_sym_try_stmt_token1, 354), (aux_sym_try_stmt_token2, 356),
     (aux_sym_catch_clause_token1, 356), (aux_sym_finally_clause_token1, 356), (sym_ld_rung, 358),
     (sym_fbd_network, 360), (sym_c_style_comment, 3), (sym_pascal_style_comment, 3),
     (sym_pragma, 3)]"

lemma ts_parse_row_542_scan: "row_scan tokens_63_2 0 ts_parse_row_542 = Some (Suc (Suc (Suc (Suc 0))))"
  unfolding ts_parse_row_542_def by simp

text \<open>Lines 116568 to 116680.\<close>

definition ts_parse_row_543 :: parse_row where
  "ts_parse_row_543 =
    [(sym_ERR_assign_func_call, 7530), (sym_ERR_unexpected_this_in_path, 2372),
     (sym_ERR_unexpected_super_in_path, 2372), (sym_ERR_fb_variables_after_method, 1462),
     (sym_ERR_var_access_not_allowed, 3160), (sym_ERR_var_config_not_allowed, 3160),
     (sym_ERR_var_global_not_allowed, 3160), (sym_ERR_method_decl_in_body, 3150),
     (sym_extern_pragma, 7490), (sym_wasm_pragma, 3150), (sym_warn_pragma, 7490),
     (sym_allow_pragma, 3140), (sym_test_pragma, 7490), (sym_once_pragma, 7490),
     (sym_must_call_pragma, 7490), (sym_export_pragma, 7490), (sym_pou_pragma, 7194),
     (sym_direct_variable, 7675), (sym_deref_expression, 2373), (sym_variable, 7599),
     (sym_var_access, 2373), (sym_in_out_decls, 3160), (sym_var_decls, 3160),
     (sym_retain_var_decls, 3160), (sym_temp_var_decls, 3160), (sym_external_var_decls, 3160),
     (sym_global_var_decls, 2947), (sym_loc_partly_var_decl, 3160), (sym__fb_variables, 2343),
     (sym_fb_input_decls, 3160), (sym_fb_output_decls, 3160), (sym_no_retain_var_decls, 3160),
     (sym_fb_body, 10466), (sym_method_decl, 2549), (sym_prog_access_decls, 3043), (sym_SFC, 7970),
     (sym_SFC_network, 7612), (sym_initial_step, 7439), (sym_config_init, 3047),
     (sym_variable_access, 7530), (sym_func_call, 2961), (sym_stmt_list, 7970), (sym__stmt, 2024),
     (sym_assign, 3150), (sym_if_stmt, 3150), (sym_case_stmt, 3150), (sym_for_stmt, 3150),
     (sym_while_stmt, 3150), (sym_repeat_stmt, 3150), (sym_raise_stmt, 3150), (sym_try_stmt, 3150),
     (sym_ERR_clause_outside_try, 3150), (sym_begin_path_expression, 2943), (sym_invocation, 2934),
     (sym_any_invocation, 2935), (sym_this_invocation, 2641), (sym_super_invocation, 2641),
     (sym_super_body_invocation, 2935), (sym_path_expression, 2627), (sym_field_expression, 2373),
     (sym_index_expression, 2373), (sym_ladder_diagram, 7970), (sym_fb_diagram, 7970),
     (aux_sym_ERR_fb_variables_after_method_repeat1, 2343), (aux_sym_func_decl_repeat1, 7194),
     (aux_sym_fb_decl_repeat3, 2549), (aux_sym_SFC_repeat1, 7612),
     (aux_sym_stmt_list_repeat1, 2024), (aux_sym_ladder_diagram_repeat1, 8009),
     (aux_sym_fb_diagram_repeat1, 8013), (sym_identifier, 298),
     (aux_sym_ERR_unexpected_this_in_path_token1, 304),
     (aux_sym_ERR_unexpected_super_in_path_token1, 306), (sym_line_comment, 3),
     (anon_sym_LBRACE, 308), (aux_sym_test_pragma_token1, 9), (aux_sym_once_pragma_token1, 11),
     (aux_sym_must_call_pragma_token1, 13), (aux_sym_export_pragma_token1, 15),
     (anon_sym_SEMI, 310), (anon_sym_PERCENT, 312), (aux_sym_input_decls_token1, 314),
     (aux_sym_output_decls_token1, 316), (aux_sym_in_out_decls_token1, 318),
     (aux_sym_var_decls_token1, 320), (aux_sym_temp_var_decls_token1, 322),
     (aux_sym_external_var_decls_token1, 324), (aux_sym_global_var_decls_token1, 326),
     (aux_sym_fb_decl_token4, 1416), (aux_sym_method_decl_token1, 330),
     (aux_sym_prog_access_decls_token1, 332), (aux_sym_initial_step_token1, 334),
     (aux_sym_config_init_token1, 336), (aux_sym__stmt_token1, 340), (aux_sym__stmt_token2, 340),
     (aux_sym__stmt_token3, 340), (aux_sym_if_stmt_token1, 342), (aux_sym_case_stmt_token1, 344),
     (aux_sym_for_stmt_token1, 346), (aux_sym_while_stmt_token1, 348),
     (aux_sym_repeat_stmt_token1, 350), (aux_sym_raise_stmt_token1, 352),
     (aux_sym_try_stmt_token1, 354), (aux_sym_try_stmt_token2, 356),
     (aux_sym_catch_clause_token1, 356), (aux_sym_finally_clause_token1, 356), (sym_ld_rung, 358),
     (sym_fbd_network, 360), (sym_c_style_comment, 3), (sym_pascal_style_comment, 3),
     (sym_pragma, 3)]"

lemma ts_parse_row_543_scan: "row_scan tokens_63_2 0 ts_parse_row_543 = Some (Suc (Suc (Suc (Suc 0))))"
  unfolding ts_parse_row_543_def by simp

text \<open>Lines 116681 to 116793.\<close>

definition ts_parse_row_544 :: parse_row where
  "ts_parse_row_544 =
    [(sym_ERR_assign_func_call, 7530), (sym_ERR_unexpected_this_in_path, 2372),
     (sym_ERR_unexpected_super_in_path, 2372), (sym_ERR_fb_variables_after_method, 1463),
     (sym_ERR_var_access_not_allowed, 3160), (sym_ERR_var_config_not_allowed, 3160),
     (sym_ERR_var_global_not_allowed, 3160), (sym_ERR_method_decl_in_body, 3150),
     (sym_extern_pragma, 7490), (sym_wasm_pragma, 3150), (sym_warn_pragma, 7490),
     (sym_allow_pragma, 3140), (sym_test_pragma, 7490), (sym_once_pragma, 7490),
     (sym_must_call_pragma, 7490), (sym_export_pragma, 7490), (sym_pou_pragma, 7194),
     (sym_direct_variable, 7675), (sym_deref_expression, 2373), (sym_variable, 7599),
     (sym_var_access, 2373), (sym_in_out_decls, 3160), (sym_var_decls, 3160),
     (sym_retain_var_decls, 3160), (sym_temp_var_decls, 3160), (sym_external_var_decls, 3160),
     (sym_global_var_decls, 2947), (sym_loc_partly_var_decl, 3160), (sym__fb_variables, 2347),
     (sym_fb_input_decls, 3160), (sym_fb_output_decls, 3160), (sym_no_retain_var_decls, 3160),
     (sym_fb_body, 10486), (sym_method_decl, 669), (sym_prog_access_decls, 3043), (sym_SFC, 7970),
     (sym_SFC_network, 7612), (sym_initial_step, 7439), (sym_config_init, 3047),
     (sym_variable_access, 7530), (sym_func_call, 2961), (sym_stmt_list, 7970), (sym__stmt, 2024),
     (sym_assign, 3150), (sym_if_stmt, 3150), (sym_case_stmt, 3150), (sym_for_stmt, 3150),
     (sym_while_stmt, 3150), (sym_repeat_stmt, 3150), (sym_raise_stmt, 3150), (sym_try_stmt, 3150),
     (sym_ERR_clause_outside_try, 3150), (sym_begin_path_expression, 2943), (sym_invocation, 2934),
     (sym_any_invocation, 2935), (sym_this_invocation, 2641), (sym_super_invocation, 2641),
     (sym_super_body_invocation, 2935), (sym_path_expression, 2627), (sym_field_expression, 2373),
     (sym_index_expression, 2373), (sym_ladder_diagram, 7970), (sym_fb_diagram, 7970),
     (aux_sym_ERR_fb_variables_after_method_repeat1, 2347), (aux_sym_func_decl_repeat1, 7194),
     (aux_sym_fb_decl_repeat3, 669), (aux_sym_SFC_repeat1, 7612), (aux_sym_stmt_list_repeat1, 2024),
     (aux_sym_ladder_diagram_repeat1, 8009), (aux_sym_fb_diagram_repeat1, 8013),
     (sym_identifier, 298), (aux_sym_ERR_unexpected_this_in_path_token1, 304),
     (aux_sym_ERR_unexpected_super_in_path_token1, 306), (sym_line_comment, 3),
     (anon_sym_LBRACE, 308), (aux_sym_test_pragma_token1, 9), (aux_sym_once_pragma_token1, 11),
     (aux_sym_must_call_pragma_token1, 13), (aux_sym_export_pragma_token1, 15),
     (anon_sym_SEMI, 310), (anon_sym_PERCENT, 312), (aux_sym_input_decls_token1, 314),
     (aux_sym_output_decls_token1, 316), (aux_sym_in_out_decls_token1, 318),
     (aux_sym_var_decls_token1, 320), (aux_sym_temp_var_decls_token1, 322),
     (aux_sym_external_var_decls_token1, 324), (aux_sym_global_var_decls_token1, 326),
     (aux_sym_fb_decl_token4, 1418), (aux_sym_method_decl_token1, 330),
     (aux_sym_prog_access_decls_token1, 332), (aux_sym_initial_step_token1, 334),
     (aux_sym_config_init_token1, 336), (aux_sym__stmt_token1, 340), (aux_sym__stmt_token2, 340),
     (aux_sym__stmt_token3, 340), (aux_sym_if_stmt_token1, 342), (aux_sym_case_stmt_token1, 344),
     (aux_sym_for_stmt_token1, 346), (aux_sym_while_stmt_token1, 348),
     (aux_sym_repeat_stmt_token1, 350), (aux_sym_raise_stmt_token1, 352),
     (aux_sym_try_stmt_token1, 354), (aux_sym_try_stmt_token2, 356),
     (aux_sym_catch_clause_token1, 356), (aux_sym_finally_clause_token1, 356), (sym_ld_rung, 358),
     (sym_fbd_network, 360), (sym_c_style_comment, 3), (sym_pascal_style_comment, 3),
     (sym_pragma, 3)]"

lemma ts_parse_row_544_scan: "row_scan tokens_63_2 0 ts_parse_row_544 = Some (Suc (Suc (Suc (Suc 0))))"
  unfolding ts_parse_row_544_def by simp

text \<open>Lines 116794 to 116906.\<close>

definition ts_parse_row_545 :: parse_row where
  "ts_parse_row_545 =
    [(sym_ERR_assign_func_call, 7530), (sym_ERR_unexpected_this_in_path, 2372),
     (sym_ERR_unexpected_super_in_path, 2372), (sym_ERR_fb_variables_after_method, 1465),
     (sym_ERR_var_access_not_allowed, 3160), (sym_ERR_var_config_not_allowed, 3160),
     (sym_ERR_var_global_not_allowed, 3160), (sym_ERR_method_decl_in_body, 3150),
     (sym_extern_pragma, 7490), (sym_wasm_pragma, 3150), (sym_warn_pragma, 7490),
     (sym_allow_pragma, 3140), (sym_test_pragma, 7490), (sym_once_pragma, 7490),
     (sym_must_call_pragma, 7490), (sym_export_pragma, 7490), (sym_pou_pragma, 7194),
     (sym_direct_variable, 7675), (sym_deref_expression, 2373), (sym_variable, 7599),
     (sym_var_access, 2373), (sym_in_out_decls, 3160), (sym_var_decls, 3160),
     (sym_retain_var_decls, 3160), (sym_temp_var_decls, 3160), (sym_external_var_decls, 3160),
     (sym_global_var_decls, 2947), (sym_loc_partly_var_decl, 3160), (sym__fb_variables, 2343),
     (sym_fb_input_decls, 3160), (sym_fb_output_decls, 3160), (sym_no_retain_var_decls, 3160),
     (sym_fb_body, 10507), (sym_method_decl, 2549), (sym_prog_access_decls, 3043), (sym_SFC, 7970),
     (sym_SFC_network, 7612), (sym_initial_step, 7439), (sym_config_init, 3047),
     (sym_variable_access, 7530), (sym_func_call, 2961), (sym_stmt_list, 7970), (sym__stmt, 2024),
     (sym_assign, 3150), (sym_if_stmt, 3150), (sym_case_stmt, 3150), (sym_for_stmt, 3150),
     (sym_while_stmt, 3150), (sym_repeat_stmt, 3150), (sym_raise_stmt, 3150), (sym_try_stmt, 3150),
     (sym_ERR_clause_outside_try, 3150), (sym_begin_path_expression, 2943), (sym_invocation, 2934),
     (sym_any_invocation, 2935), (sym_this_invocation, 2641), (sym_super_invocation, 2641),
     (sym_super_body_invocation, 2935), (sym_path_expression, 2627), (sym_field_expression, 2373),
     (sym_index_expression, 2373), (sym_ladder_diagram, 7970), (sym_fb_diagram, 7970),
     (aux_sym_ERR_fb_variables_after_method_repeat1, 2343), (aux_sym_func_decl_repeat1, 7194),
     (aux_sym_fb_decl_repeat3, 2549), (aux_sym_SFC_repeat1, 7612),
     (aux_sym_stmt_list_repeat1, 2024), (aux_sym_ladder_diagram_repeat1, 8009),
     (aux_sym_fb_diagram_repeat1, 8013), (sym_identifier, 298),
     (aux_sym_ERR_unexpected_this_in_path_token1, 304),
     (aux_sym_ERR_unexpected_super_in_path_token1, 306), (sym_line_comment, 3),
     (anon_sym_LBRACE, 308), (aux_sym_test_pragma_token1, 9), (aux_sym_once_pragma_token1, 11),
     (aux_sym_must_call_pragma_token1, 13), (aux_sym_export_pragma_token1, 15),
     (anon_sym_SEMI, 310), (anon_sym_PERCENT, 312), (aux_sym_input_decls_token1, 314),
     (aux_sym_output_decls_token1, 316), (aux_sym_in_out_decls_token1, 318),
     (aux_sym_var_decls_token1, 320), (aux_sym_temp_var_decls_token1, 322),
     (aux_sym_external_var_decls_token1, 324), (aux_sym_global_var_decls_token1, 326),
     (aux_sym_fb_decl_token4, 1420), (aux_sym_method_decl_token1, 330),
     (aux_sym_prog_access_decls_token1, 332), (aux_sym_initial_step_token1, 334),
     (aux_sym_config_init_token1, 336), (aux_sym__stmt_token1, 340), (aux_sym__stmt_token2, 340),
     (aux_sym__stmt_token3, 340), (aux_sym_if_stmt_token1, 342), (aux_sym_case_stmt_token1, 344),
     (aux_sym_for_stmt_token1, 346), (aux_sym_while_stmt_token1, 348),
     (aux_sym_repeat_stmt_token1, 350), (aux_sym_raise_stmt_token1, 352),
     (aux_sym_try_stmt_token1, 354), (aux_sym_try_stmt_token2, 356),
     (aux_sym_catch_clause_token1, 356), (aux_sym_finally_clause_token1, 356), (sym_ld_rung, 358),
     (sym_fbd_network, 360), (sym_c_style_comment, 3), (sym_pascal_style_comment, 3),
     (sym_pragma, 3)]"

lemma ts_parse_row_545_scan: "row_scan tokens_63_2 0 ts_parse_row_545 = Some (Suc (Suc (Suc (Suc 0))))"
  unfolding ts_parse_row_545_def by simp

text \<open>Lines 116907 to 117019.\<close>

definition ts_parse_row_546 :: parse_row where
  "ts_parse_row_546 =
    [(sym_ERR_assign_func_call, 7530), (sym_ERR_unexpected_this_in_path, 2372),
     (sym_ERR_unexpected_super_in_path, 2372), (sym_ERR_fb_variables_after_method, 1467),
     (sym_ERR_var_access_not_allowed, 3160), (sym_ERR_var_config_not_allowed, 3160),
     (sym_ERR_var_global_not_allowed, 3160), (sym_ERR_method_decl_in_body, 3150),
     (sym_extern_pragma, 7490), (sym_wasm_pragma, 3150), (sym_warn_pragma, 7490),
     (sym_allow_pragma, 3140), (sym_test_pragma, 7490), (sym_once_pragma, 7490),
     (sym_must_call_pragma, 7490), (sym_export_pragma, 7490), (sym_pou_pragma, 7194),
     (sym_direct_variable, 7675), (sym_deref_expression, 2373), (sym_variable, 7599),
     (sym_var_access, 2373), (sym_in_out_decls, 3160), (sym_var_decls, 3160),
     (sym_retain_var_decls, 3160), (sym_temp_var_decls, 3160), (sym_external_var_decls, 3160),
     (sym_global_var_decls, 2947), (sym_loc_partly_var_decl, 3160), (sym__fb_variables, 2343),
     (sym_fb_input_decls, 3160), (sym_fb_output_decls, 3160), (sym_no_retain_var_decls, 3160),
     (sym_fb_body, 8607), (sym_method_decl, 2549), (sym_prog_access_decls, 3043), (sym_SFC, 7970),
     (sym_SFC_network, 7612), (sym_initial_step, 7439), (sym_config_init, 3047),
     (sym_variable_access, 7530), (sym_func_call, 2961), (sym_stmt_list, 7970), (sym__stmt, 2024),
     (sym_assign, 3150), (sym_if_stmt, 3150), (sym_case_stmt, 3150), (sym_for_stmt, 3150),
     (sym_while_stmt, 3150), (sym_repeat_stmt, 3150), (sym_raise_stmt, 3150), (sym_try_stmt, 3150),
     (sym_ERR_clause_outside_try, 3150), (sym_begin_path_expression, 2943), (sym_invocation, 2934),
     (sym_any_invocation, 2935), (sym_this_invocation, 2641), (sym_super_invocation, 2641),
     (sym_super_body_invocation, 2935), (sym_path_expression, 2627), (sym_field_expression, 2373),
     (sym_index_expression, 2373), (sym_ladder_diagram, 7970), (sym_fb_diagram, 7970),
     (aux_sym_ERR_fb_variables_after_method_repeat1, 2343), (aux_sym_func_decl_repeat1, 7194),
     (aux_sym_fb_decl_repeat3, 2549), (aux_sym_SFC_repeat1, 7612),
     (aux_sym_stmt_list_repeat1, 2024), (aux_sym_ladder_diagram_repeat1, 8009),
     (aux_sym_fb_diagram_repeat1, 8013), (sym_identifier, 298),
     (aux_sym_ERR_unexpected_this_in_path_token1, 304),
     (aux_sym_ERR_unexpected_super_in_path_token1, 306), (sym_line_comment, 3),
     (anon_sym_LBRACE, 308), (aux_sym_test_pragma_token1, 9), (aux_sym_once_pragma_token1, 11),
     (aux_sym_must_call_pragma_token1, 13), (aux_sym_export_pragma_token1, 15),
     (anon_sym_SEMI, 310), (anon_sym_PERCENT, 312), (aux_sym_input_decls_token1, 314),
     (aux_sym_output_decls_token1, 316), (aux_sym_in_out_decls_token1, 318),
     (aux_sym_var_decls_token1, 320), (aux_sym_temp_var_decls_token1, 322),
     (aux_sym_external_var_decls_token1, 324), (aux_sym_global_var_decls_token1, 326),
     (aux_sym_fb_decl_token4, 1422), (aux_sym_method_decl_token1, 330),
     (aux_sym_prog_access_decls_token1, 332), (aux_sym_initial_step_token1, 334),
     (aux_sym_config_init_token1, 336), (aux_sym__stmt_token1, 340), (aux_sym__stmt_token2, 340),
     (aux_sym__stmt_token3, 340), (aux_sym_if_stmt_token1, 342), (aux_sym_case_stmt_token1, 344),
     (aux_sym_for_stmt_token1, 346), (aux_sym_while_stmt_token1, 348),
     (aux_sym_repeat_stmt_token1, 350), (aux_sym_raise_stmt_token1, 352),
     (aux_sym_try_stmt_token1, 354), (aux_sym_try_stmt_token2, 356),
     (aux_sym_catch_clause_token1, 356), (aux_sym_finally_clause_token1, 356), (sym_ld_rung, 358),
     (sym_fbd_network, 360), (sym_c_style_comment, 3), (sym_pascal_style_comment, 3),
     (sym_pragma, 3)]"

lemma ts_parse_row_546_scan: "row_scan tokens_63_2 0 ts_parse_row_546 = Some (Suc (Suc (Suc (Suc 0))))"
  unfolding ts_parse_row_546_def by simp

text \<open>Lines 117020 to 117132.\<close>

definition ts_parse_row_547 :: parse_row where
  "ts_parse_row_547 =
    [(sym_ERR_assign_func_call, 7530), (sym_ERR_unexpected_this_in_path, 2372),
     (sym_ERR_unexpected_super_in_path, 2372), (sym_ERR_fb_variables_after_method, 1468),
     (sym_ERR_var_access_not_allowed, 3160), (sym_ERR_var_config_not_allowed, 3160),
     (sym_ERR_var_global_not_allowed, 3160), (sym_ERR_method_decl_in_body, 3150),
     (sym_extern_pragma, 7490), (sym_wasm_pragma, 3150), (sym_warn_pragma, 7490),
     (sym_allow_pragma, 3140), (sym_test_pragma, 7490), (sym_once_pragma, 7490),
     (sym_must_call_pragma, 7490), (sym_export_pragma, 7490), (sym_pou_pragma, 7194),
     (sym_direct_variable, 7675), (sym_deref_expression, 2373), (sym_variable, 7599),
     (sym_var_access, 2373), (sym_in_out_decls, 3160), (sym_var_decls, 3160),
     (sym_retain_var_decls, 3160), (sym_temp_var_decls, 3160), (sym_external_var_decls, 3160),
     (sym_global_var_decls, 2947), (sym_loc_partly_var_decl, 3160), (sym__fb_variables, 2343),
     (sym_fb_input_decls, 3160), (sym_fb_output_decls, 3160), (sym_no_retain_var_decls, 3160),
     (sym_fb_body, 8618), (sym_method_decl, 2549), (sym_prog_access_decls, 3043), (sym_SFC, 7970),
     (sym_SFC_network, 7612), (sym_initial_step, 7439), (sym_config_init, 3047),
     (sym_variable_access, 7530), (sym_func_call, 2961), (sym_stmt_list, 7970), (sym__stmt, 2024),
     (sym_assign, 3150), (sym_if_stmt, 3150), (sym_case_stmt, 3150), (sym_for_stmt, 3150),
     (sym_while_stmt, 3150), (sym_repeat_stmt, 3150), (sym_raise_stmt, 3150), (sym_try_stmt, 3150),
     (sym_ERR_clause_outside_try, 3150), (sym_begin_path_expression, 2943), (sym_invocation, 2934),
     (sym_any_invocation, 2935), (sym_this_invocation, 2641), (sym_super_invocation, 2641),
     (sym_super_body_invocation, 2935), (sym_path_expression, 2627), (sym_field_expression, 2373),
     (sym_index_expression, 2373), (sym_ladder_diagram, 7970), (sym_fb_diagram, 7970),
     (aux_sym_ERR_fb_variables_after_method_repeat1, 2343), (aux_sym_func_decl_repeat1, 7194),
     (aux_sym_fb_decl_repeat3, 2549), (aux_sym_SFC_repeat1, 7612),
     (aux_sym_stmt_list_repeat1, 2024), (aux_sym_ladder_diagram_repeat1, 8009),
     (aux_sym_fb_diagram_repeat1, 8013), (sym_identifier, 298),
     (aux_sym_ERR_unexpected_this_in_path_token1, 304),
     (aux_sym_ERR_unexpected_super_in_path_token1, 306), (sym_line_comment, 3),
     (anon_sym_LBRACE, 308), (aux_sym_test_pragma_token1, 9), (aux_sym_once_pragma_token1, 11),
     (aux_sym_must_call_pragma_token1, 13), (aux_sym_export_pragma_token1, 15),
     (anon_sym_SEMI, 310), (anon_sym_PERCENT, 312), (aux_sym_input_decls_token1, 314),
     (aux_sym_output_decls_token1, 316), (aux_sym_in_out_decls_token1, 318),
     (aux_sym_var_decls_token1, 320), (aux_sym_temp_var_decls_token1, 322),
     (aux_sym_external_var_decls_token1, 324), (aux_sym_global_var_decls_token1, 326),
     (aux_sym_fb_decl_token4, 1424), (aux_sym_method_decl_token1, 330),
     (aux_sym_prog_access_decls_token1, 332), (aux_sym_initial_step_token1, 334),
     (aux_sym_config_init_token1, 336), (aux_sym__stmt_token1, 340), (aux_sym__stmt_token2, 340),
     (aux_sym__stmt_token3, 340), (aux_sym_if_stmt_token1, 342), (aux_sym_case_stmt_token1, 344),
     (aux_sym_for_stmt_token1, 346), (aux_sym_while_stmt_token1, 348),
     (aux_sym_repeat_stmt_token1, 350), (aux_sym_raise_stmt_token1, 352),
     (aux_sym_try_stmt_token1, 354), (aux_sym_try_stmt_token2, 356),
     (aux_sym_catch_clause_token1, 356), (aux_sym_finally_clause_token1, 356), (sym_ld_rung, 358),
     (sym_fbd_network, 360), (sym_c_style_comment, 3), (sym_pascal_style_comment, 3),
     (sym_pragma, 3)]"

lemma ts_parse_row_547_scan: "row_scan tokens_63_2 0 ts_parse_row_547 = Some (Suc (Suc (Suc (Suc 0))))"
  unfolding ts_parse_row_547_def by simp

text \<open>Lines 117133 to 117245.\<close>

definition ts_parse_row_548 :: parse_row where
  "ts_parse_row_548 =
    [(sym_ERR_assign_func_call, 7530), (sym_ERR_unexpected_this_in_path, 2372),
     (sym_ERR_unexpected_super_in_path, 2372), (sym_ERR_fb_variables_after_method, 1469),
     (sym_ERR_var_access_not_allowed, 3160), (sym_ERR_var_config_not_allowed, 3160),
     (sym_ERR_var_global_not_allowed, 3160), (sym_ERR_method_decl_in_body, 3150),
     (sym_extern_pragma, 7490), (sym_wasm_pragma, 3150), (sym_warn_pragma, 7490),
     (sym_allow_pragma, 3140), (sym_test_pragma, 7490), (sym_once_pragma, 7490),
     (sym_must_call_pragma, 7490), (sym_export_pragma, 7490), (sym_pou_pragma, 7194),
     (sym_direct_variable, 7675), (sym_deref_expression, 2373), (sym_variable, 7599),
     (sym_var_access, 2373), (sym_in_out_decls, 3160), (sym_var_decls, 3160),
     (sym_retain_var_decls, 3160), (sym_temp_var_decls, 3160), (sym_external_var_decls, 3160),
     (sym_global_var_decls, 2947), (sym_loc_partly_var_decl, 3160), (sym__fb_variables, 2347),
     (sym_fb_input_decls, 3160), (sym_fb_output_decls, 3160), (sym_no_retain_var_decls, 3160),
     (sym_fb_body, 8625), (sym_method_decl, 671), (sym_prog_access_decls, 3043), (sym_SFC, 7970),
     (sym_SFC_network, 7612), (sym_initial_step, 7439), (sym_config_init, 3047),
     (sym_variable_access, 7530), (sym_func_call, 2961), (sym_stmt_list, 7970), (sym__stmt, 2024),
     (sym_assign, 3150), (sym_if_stmt, 3150), (sym_case_stmt, 3150), (sym_for_stmt, 3150),
     (sym_while_stmt, 3150), (sym_repeat_stmt, 3150), (sym_raise_stmt, 3150), (sym_try_stmt, 3150),
     (sym_ERR_clause_outside_try, 3150), (sym_begin_path_expression, 2943), (sym_invocation, 2934),
     (sym_any_invocation, 2935), (sym_this_invocation, 2641), (sym_super_invocation, 2641),
     (sym_super_body_invocation, 2935), (sym_path_expression, 2627), (sym_field_expression, 2373),
     (sym_index_expression, 2373), (sym_ladder_diagram, 7970), (sym_fb_diagram, 7970),
     (aux_sym_ERR_fb_variables_after_method_repeat1, 2347), (aux_sym_func_decl_repeat1, 7194),
     (aux_sym_fb_decl_repeat3, 671), (aux_sym_SFC_repeat1, 7612), (aux_sym_stmt_list_repeat1, 2024),
     (aux_sym_ladder_diagram_repeat1, 8009), (aux_sym_fb_diagram_repeat1, 8013),
     (sym_identifier, 298), (aux_sym_ERR_unexpected_this_in_path_token1, 304),
     (aux_sym_ERR_unexpected_super_in_path_token1, 306), (sym_line_comment, 3),
     (anon_sym_LBRACE, 308), (aux_sym_test_pragma_token1, 9), (aux_sym_once_pragma_token1, 11),
     (aux_sym_must_call_pragma_token1, 13), (aux_sym_export_pragma_token1, 15),
     (anon_sym_SEMI, 310), (anon_sym_PERCENT, 312), (aux_sym_input_decls_token1, 314),
     (aux_sym_output_decls_token1, 316), (aux_sym_in_out_decls_token1, 318),
     (aux_sym_var_decls_token1, 320), (aux_sym_temp_var_decls_token1, 322),
     (aux_sym_external_var_decls_token1, 324), (aux_sym_global_var_decls_token1, 326),
     (aux_sym_fb_decl_token4, 1426), (aux_sym_method_decl_token1, 330),
     (aux_sym_prog_access_decls_token1, 332), (aux_sym_initial_step_token1, 334),
     (aux_sym_config_init_token1, 336), (aux_sym__stmt_token1, 340), (aux_sym__stmt_token2, 340),
     (aux_sym__stmt_token3, 340), (aux_sym_if_stmt_token1, 342), (aux_sym_case_stmt_token1, 344),
     (aux_sym_for_stmt_token1, 346), (aux_sym_while_stmt_token1, 348),
     (aux_sym_repeat_stmt_token1, 350), (aux_sym_raise_stmt_token1, 352),
     (aux_sym_try_stmt_token1, 354), (aux_sym_try_stmt_token2, 356),
     (aux_sym_catch_clause_token1, 356), (aux_sym_finally_clause_token1, 356), (sym_ld_rung, 358),
     (sym_fbd_network, 360), (sym_c_style_comment, 3), (sym_pascal_style_comment, 3),
     (sym_pragma, 3)]"

lemma ts_parse_row_548_scan: "row_scan tokens_63_2 0 ts_parse_row_548 = Some (Suc (Suc (Suc (Suc 0))))"
  unfolding ts_parse_row_548_def by simp

text \<open>Lines 117246 to 117358.\<close>

definition ts_parse_row_549 :: parse_row where
  "ts_parse_row_549 =
    [(sym_ERR_assign_func_call, 7530), (sym_ERR_unexpected_this_in_path, 2372),
     (sym_ERR_unexpected_super_in_path, 2372), (sym_ERR_fb_variables_after_method, 1470),
     (sym_ERR_var_access_not_allowed, 3160), (sym_ERR_var_config_not_allowed, 3160),
     (sym_ERR_var_global_not_allowed, 3160), (sym_ERR_method_decl_in_body, 3150),
     (sym_extern_pragma, 7490), (sym_wasm_pragma, 3150), (sym_warn_pragma, 7490),
     (sym_allow_pragma, 3140), (sym_test_pragma, 7490), (sym_once_pragma, 7490),
     (sym_must_call_pragma, 7490), (sym_export_pragma, 7490), (sym_pou_pragma, 7194),
     (sym_direct_variable, 7675), (sym_deref_expression, 2373), (sym_variable, 7599),
     (sym_var_access, 2373), (sym_in_out_decls, 3160), (sym_var_decls, 3160),
     (sym_retain_var_decls, 3160), (sym_temp_var_decls, 3160), (sym_external_var_decls, 3160),
     (sym_global_var_decls, 2947), (sym_loc_partly_var_decl, 3160), (sym__fb_variables, 2343),
     (sym_fb_input_decls, 3160), (sym_fb_output_decls, 3160), (sym_no_retain_var_decls, 3160),
     (sym_fb_body, 8630), (sym_method_decl, 2549), (sym_prog_access_decls, 3043), (sym_SFC, 7970),
     (sym_SFC_network, 7612), (sym_initial_step, 7439), (sym_config_init, 3047),
     (sym_variable_access, 7530), (sym_func_call, 2961), (sym_stmt_list, 7970), (sym__stmt, 2024),
     (sym_assign, 3150), (sym_if_stmt, 3150), (sym_case_stmt, 3150), (sym_for_stmt, 3150),
     (sym_while_stmt, 3150), (sym_repeat_stmt, 3150), (sym_raise_stmt, 3150), (sym_try_stmt, 3150),
     (sym_ERR_clause_outside_try, 3150), (sym_begin_path_expression, 2943), (sym_invocation, 2934),
     (sym_any_invocation, 2935), (sym_this_invocation, 2641), (sym_super_invocation, 2641),
     (sym_super_body_invocation, 2935), (sym_path_expression, 2627), (sym_field_expression, 2373),
     (sym_index_expression, 2373), (sym_ladder_diagram, 7970), (sym_fb_diagram, 7970),
     (aux_sym_ERR_fb_variables_after_method_repeat1, 2343), (aux_sym_func_decl_repeat1, 7194),
     (aux_sym_fb_decl_repeat3, 2549), (aux_sym_SFC_repeat1, 7612),
     (aux_sym_stmt_list_repeat1, 2024), (aux_sym_ladder_diagram_repeat1, 8009),
     (aux_sym_fb_diagram_repeat1, 8013), (sym_identifier, 298),
     (aux_sym_ERR_unexpected_this_in_path_token1, 304),
     (aux_sym_ERR_unexpected_super_in_path_token1, 306), (sym_line_comment, 3),
     (anon_sym_LBRACE, 308), (aux_sym_test_pragma_token1, 9), (aux_sym_once_pragma_token1, 11),
     (aux_sym_must_call_pragma_token1, 13), (aux_sym_export_pragma_token1, 15),
     (anon_sym_SEMI, 310), (anon_sym_PERCENT, 312), (aux_sym_input_decls_token1, 314),
     (aux_sym_output_decls_token1, 316), (aux_sym_in_out_decls_token1, 318),
     (aux_sym_var_decls_token1, 320), (aux_sym_temp_var_decls_token1, 322),
     (aux_sym_external_var_decls_token1, 324), (aux_sym_global_var_decls_token1, 326),
     (aux_sym_fb_decl_token4, 1428), (aux_sym_method_decl_token1, 330),
     (aux_sym_prog_access_decls_token1, 332), (aux_sym_initial_step_token1, 334),
     (aux_sym_config_init_token1, 336), (aux_sym__stmt_token1, 340), (aux_sym__stmt_token2, 340),
     (aux_sym__stmt_token3, 340), (aux_sym_if_stmt_token1, 342), (aux_sym_case_stmt_token1, 344),
     (aux_sym_for_stmt_token1, 346), (aux_sym_while_stmt_token1, 348),
     (aux_sym_repeat_stmt_token1, 350), (aux_sym_raise_stmt_token1, 352),
     (aux_sym_try_stmt_token1, 354), (aux_sym_try_stmt_token2, 356),
     (aux_sym_catch_clause_token1, 356), (aux_sym_finally_clause_token1, 356), (sym_ld_rung, 358),
     (sym_fbd_network, 360), (sym_c_style_comment, 3), (sym_pascal_style_comment, 3),
     (sym_pragma, 3)]"

lemma ts_parse_row_549_scan: "row_scan tokens_63_2 0 ts_parse_row_549 = Some (Suc (Suc (Suc (Suc 0))))"
  unfolding ts_parse_row_549_def by simp

text \<open>Lines 117359 to 117471.\<close>

definition ts_parse_row_550 :: parse_row where
  "ts_parse_row_550 =
    [(sym_ERR_assign_func_call, 7530), (sym_ERR_unexpected_this_in_path, 2372),
     (sym_ERR_unexpected_super_in_path, 2372), (sym_ERR_fb_variables_after_method, 1471),
     (sym_ERR_var_access_not_allowed, 3160), (sym_ERR_var_config_not_allowed, 3160),
     (sym_ERR_var_global_not_allowed, 3160), (sym_ERR_method_decl_in_body, 3150),
     (sym_extern_pragma, 7490), (sym_wasm_pragma, 3150), (sym_warn_pragma, 7490),
     (sym_allow_pragma, 3140), (sym_test_pragma, 7490), (sym_once_pragma, 7490),
     (sym_must_call_pragma, 7490), (sym_export_pragma, 7490), (sym_pou_pragma, 7194),
     (sym_direct_variable, 7675), (sym_deref_expression, 2373), (sym_variable, 7599),
     (sym_var_access, 2373), (sym_in_out_decls, 3160), (sym_var_decls, 3160),
     (sym_retain_var_decls, 3160), (sym_temp_var_decls, 3160), (sym_external_var_decls, 3160),
     (sym_global_var_decls, 2947), (sym_loc_partly_var_decl, 3160), (sym__fb_variables, 2347),
     (sym_fb_input_decls, 3160), (sym_fb_output_decls, 3160), (sym_no_retain_var_decls, 3160),
     (sym_fb_body, 8642), (sym_method_decl, 672), (sym_prog_access_decls, 3043), (sym_SFC, 7970),
     (sym_SFC_network, 7612), (sym_initial_step, 7439), (sym_config_init, 3047),
     (sym_variable_access, 7530), (sym_func_call, 2961), (sym_stmt_list, 7970), (sym__stmt, 2024),
     (sym_assign, 3150), (sym_if_stmt, 3150), (sym_case_stmt, 3150), (sym_for_stmt, 3150),
     (sym_while_stmt, 3150), (sym_repeat_stmt, 3150), (sym_raise_stmt, 3150), (sym_try_stmt, 3150),
     (sym_ERR_clause_outside_try, 3150), (sym_begin_path_expression, 2943), (sym_invocation, 2934),
     (sym_any_invocation, 2935), (sym_this_invocation, 2641), (sym_super_invocation, 2641),
     (sym_super_body_invocation, 2935), (sym_path_expression, 2627), (sym_field_expression, 2373),
     (sym_index_expression, 2373), (sym_ladder_diagram, 7970), (sym_fb_diagram, 7970),
     (aux_sym_ERR_fb_variables_after_method_repeat1, 2347), (aux_sym_func_decl_repeat1, 7194),
     (aux_sym_fb_decl_repeat3, 672), (aux_sym_SFC_repeat1, 7612), (aux_sym_stmt_list_repeat1, 2024),
     (aux_sym_ladder_diagram_repeat1, 8009), (aux_sym_fb_diagram_repeat1, 8013),
     (sym_identifier, 298), (aux_sym_ERR_unexpected_this_in_path_token1, 304),
     (aux_sym_ERR_unexpected_super_in_path_token1, 306), (sym_line_comment, 3),
     (anon_sym_LBRACE, 308), (aux_sym_test_pragma_token1, 9), (aux_sym_once_pragma_token1, 11),
     (aux_sym_must_call_pragma_token1, 13), (aux_sym_export_pragma_token1, 15),
     (anon_sym_SEMI, 310), (anon_sym_PERCENT, 312), (aux_sym_input_decls_token1, 314),
     (aux_sym_output_decls_token1, 316), (aux_sym_in_out_decls_token1, 318),
     (aux_sym_var_decls_token1, 320), (aux_sym_temp_var_decls_token1, 322),
     (aux_sym_external_var_decls_token1, 324), (aux_sym_global_var_decls_token1, 326),
     (aux_sym_fb_decl_token4, 1430), (aux_sym_method_decl_token1, 330),
     (aux_sym_prog_access_decls_token1, 332), (aux_sym_initial_step_token1, 334),
     (aux_sym_config_init_token1, 336), (aux_sym__stmt_token1, 340), (aux_sym__stmt_token2, 340),
     (aux_sym__stmt_token3, 340), (aux_sym_if_stmt_token1, 342), (aux_sym_case_stmt_token1, 344),
     (aux_sym_for_stmt_token1, 346), (aux_sym_while_stmt_token1, 348),
     (aux_sym_repeat_stmt_token1, 350), (aux_sym_raise_stmt_token1, 352),
     (aux_sym_try_stmt_token1, 354), (aux_sym_try_stmt_token2, 356),
     (aux_sym_catch_clause_token1, 356), (aux_sym_finally_clause_token1, 356), (sym_ld_rung, 358),
     (sym_fbd_network, 360), (sym_c_style_comment, 3), (sym_pascal_style_comment, 3),
     (sym_pragma, 3)]"

lemma ts_parse_row_550_scan: "row_scan tokens_63_2 0 ts_parse_row_550 = Some (Suc (Suc (Suc (Suc 0))))"
  unfolding ts_parse_row_550_def by simp

text \<open>Lines 117472 to 117584.\<close>

definition ts_parse_row_551 :: parse_row where
  "ts_parse_row_551 =
    [(sym_ERR_assign_func_call, 7530), (sym_ERR_unexpected_this_in_path, 2372),
     (sym_ERR_unexpected_super_in_path, 2372), (sym_ERR_fb_variables_after_method, 1249),
     (sym_ERR_var_access_not_allowed, 3160), (sym_ERR_var_config_not_allowed, 3160),
     (sym_ERR_var_global_not_allowed, 3160), (sym_ERR_method_decl_in_body, 3150),
     (sym_extern_pragma, 7490), (sym_wasm_pragma, 3150), (sym_warn_pragma, 7490),
     (sym_allow_pragma, 3140), (sym_test_pragma, 7490), (sym_once_pragma, 7490),
     (sym_must_call_pragma, 7490), (sym_export_pragma, 7490), (sym_pou_pragma, 7194),
     (sym_direct_variable, 7675), (sym_deref_expression, 2373), (sym_variable, 7599),
     (sym_var_access, 2373), (sym_in_out_decls, 3160), (sym_var_decls, 3160),
     (sym_retain_var_decls, 3160), (sym_temp_var_decls, 3160), (sym_external_var_decls, 3160),
     (sym_global_var_decls, 2947), (sym_loc_partly_var_decl, 3160), (sym__fb_variables, 2343),
     (sym_fb_input_decls, 3160), (sym_fb_output_decls, 3160), (sym_no_retain_var_decls, 3160),
     (sym_fb_body, 9562), (sym_method_decl, 2549), (sym_prog_access_decls, 3043), (sym_SFC, 7970),
     (sym_SFC_network, 7612), (sym_initial_step, 7439), (sym_config_init, 3047),
     (sym_variable_access, 7530), (sym_func_call, 2961), (sym_stmt_list, 7970), (sym__stmt, 2024),
     (sym_assign, 3150), (sym_if_stmt, 3150), (sym_case_stmt, 3150), (sym_for_stmt, 3150),
     (sym_while_stmt, 3150), (sym_repeat_stmt, 3150), (sym_raise_stmt, 3150), (sym_try_stmt, 3150),
     (sym_ERR_clause_outside_try, 3150), (sym_begin_path_expression, 2943), (sym_invocation, 2934),
     (sym_any_invocation, 2935), (sym_this_invocation, 2641), (sym_super_invocation, 2641),
     (sym_super_body_invocation, 2935), (sym_path_expression, 2627), (sym_field_expression, 2373),
     (sym_index_expression, 2373), (sym_ladder_diagram, 7970), (sym_fb_diagram, 7970),
     (aux_sym_ERR_fb_variables_after_method_repeat1, 2343), (aux_sym_func_decl_repeat1, 7194),
     (aux_sym_fb_decl_repeat3, 2549), (aux_sym_SFC_repeat1, 7612),
     (aux_sym_stmt_list_repeat1, 2024), (aux_sym_ladder_diagram_repeat1, 8009),
     (aux_sym_fb_diagram_repeat1, 8013), (sym_identifier, 298),
     (aux_sym_ERR_unexpected_this_in_path_token1, 304),
     (aux_sym_ERR_unexpected_super_in_path_token1, 306), (sym_line_comment, 3),
     (anon_sym_LBRACE, 308), (aux_sym_test_pragma_token1, 9), (aux_sym_once_pragma_token1, 11),
     (aux_sym_must_call_pragma_token1, 13), (aux_sym_export_pragma_token1, 15),
     (anon_sym_SEMI, 310), (anon_sym_PERCENT, 312), (aux_sym_input_decls_token1, 314),
     (aux_sym_output_decls_token1, 316), (aux_sym_in_out_decls_token1, 318),
     (aux_sym_var_decls_token1, 320), (aux_sym_temp_var_decls_token1, 322),
     (aux_sym_external_var_decls_token1, 324), (aux_sym_global_var_decls_token1, 326),
     (aux_sym_fb_decl_token4, 1432), (aux_sym_method_decl_token1, 330),
     (aux_sym_prog_access_decls_token1, 332), (aux_sym_initial_step_token1, 334),
     (aux_sym_config_init_token1, 336), (aux_sym__stmt_token1, 340), (aux_sym__stmt_token2, 340),
     (aux_sym__stmt_token3, 340), (aux_sym_if_stmt_token1, 342), (aux_sym_case_stmt_token1, 344),
     (aux_sym_for_stmt_token1, 346), (aux_sym_while_stmt_token1, 348),
     (aux_sym_repeat_stmt_token1, 350), (aux_sym_raise_stmt_token1, 352),
     (aux_sym_try_stmt_token1, 354), (aux_sym_try_stmt_token2, 356),
     (aux_sym_catch_clause_token1, 356), (aux_sym_finally_clause_token1, 356), (sym_ld_rung, 358),
     (sym_fbd_network, 360), (sym_c_style_comment, 3), (sym_pascal_style_comment, 3),
     (sym_pragma, 3)]"

lemma ts_parse_row_551_scan: "row_scan tokens_63_2 0 ts_parse_row_551 = Some (Suc (Suc (Suc (Suc 0))))"
  unfolding ts_parse_row_551_def by simp

text \<open>Lines 117585 to 117697.\<close>

definition ts_parse_row_552 :: parse_row where
  "ts_parse_row_552 =
    [(sym_ERR_assign_func_call, 7530), (sym_ERR_unexpected_this_in_path, 2372),
     (sym_ERR_unexpected_super_in_path, 2372), (sym_ERR_fb_variables_after_method, 1250),
     (sym_ERR_var_access_not_allowed, 3160), (sym_ERR_var_config_not_allowed, 3160),
     (sym_ERR_var_global_not_allowed, 3160), (sym_ERR_method_decl_in_body, 3150),
     (sym_extern_pragma, 7490), (sym_wasm_pragma, 3150), (sym_warn_pragma, 7490),
     (sym_allow_pragma, 3140), (sym_test_pragma, 7490), (sym_once_pragma, 7490),
     (sym_must_call_pragma, 7490), (sym_export_pragma, 7490), (sym_pou_pragma, 7194),
     (sym_direct_variable, 7675), (sym_deref_expression, 2373), (sym_variable, 7599),
     (sym_var_access, 2373), (sym_in_out_decls, 3160), (sym_var_decls, 3160),
     (sym_retain_var_decls, 3160), (sym_temp_var_decls, 3160), (sym_external_var_decls, 3160),
     (sym_global_var_decls, 2947), (sym_loc_partly_var_decl, 3160), (sym__fb_variables, 2347),
     (sym_fb_input_decls, 3160), (sym_fb_output_decls, 3160), (sym_no_retain_var_decls, 3160),
     (sym_fb_body, 9572), (sym_method_decl, 593), (sym_prog_access_decls, 3043), (sym_SFC, 7970),
     (sym_SFC_network, 7612), (sym_initial_step, 7439), (sym_config_init, 3047),
     (sym_variable_access, 7530), (sym_func_call, 2961), (sym_stmt_list, 7970), (sym__stmt, 2024),
     (sym_assign, 3150), (sym_if_stmt, 3150), (sym_case_stmt, 3150), (sym_for_stmt, 3150),
     (sym_while_stmt, 3150), (sym_repeat_stmt, 3150), (sym_raise_stmt, 3150), (sym_try_stmt, 3150),
     (sym_ERR_clause_outside_try, 3150), (sym_begin_path_expression, 2943), (sym_invocation, 2934),
     (sym_any_invocation, 2935), (sym_this_invocation, 2641), (sym_super_invocation, 2641),
     (sym_super_body_invocation, 2935), (sym_path_expression, 2627), (sym_field_expression, 2373),
     (sym_index_expression, 2373), (sym_ladder_diagram, 7970), (sym_fb_diagram, 7970),
     (aux_sym_ERR_fb_variables_after_method_repeat1, 2347), (aux_sym_func_decl_repeat1, 7194),
     (aux_sym_fb_decl_repeat3, 593), (aux_sym_SFC_repeat1, 7612), (aux_sym_stmt_list_repeat1, 2024),
     (aux_sym_ladder_diagram_repeat1, 8009), (aux_sym_fb_diagram_repeat1, 8013),
     (sym_identifier, 298), (aux_sym_ERR_unexpected_this_in_path_token1, 304),
     (aux_sym_ERR_unexpected_super_in_path_token1, 306), (sym_line_comment, 3),
     (anon_sym_LBRACE, 308), (aux_sym_test_pragma_token1, 9), (aux_sym_once_pragma_token1, 11),
     (aux_sym_must_call_pragma_token1, 13), (aux_sym_export_pragma_token1, 15),
     (anon_sym_SEMI, 310), (anon_sym_PERCENT, 312), (aux_sym_input_decls_token1, 314),
     (aux_sym_output_decls_token1, 316), (aux_sym_in_out_decls_token1, 318),
     (aux_sym_var_decls_token1, 320), (aux_sym_temp_var_decls_token1, 322),
     (aux_sym_external_var_decls_token1, 324), (aux_sym_global_var_decls_token1, 326),
     (aux_sym_fb_decl_token4, 1434), (aux_sym_method_decl_token1, 330),
     (aux_sym_prog_access_decls_token1, 332), (aux_sym_initial_step_token1, 334),
     (aux_sym_config_init_token1, 336), (aux_sym__stmt_token1, 340), (aux_sym__stmt_token2, 340),
     (aux_sym__stmt_token3, 340), (aux_sym_if_stmt_token1, 342), (aux_sym_case_stmt_token1, 344),
     (aux_sym_for_stmt_token1, 346), (aux_sym_while_stmt_token1, 348),
     (aux_sym_repeat_stmt_token1, 350), (aux_sym_raise_stmt_token1, 352),
     (aux_sym_try_stmt_token1, 354), (aux_sym_try_stmt_token2, 356),
     (aux_sym_catch_clause_token1, 356), (aux_sym_finally_clause_token1, 356), (sym_ld_rung, 358),
     (sym_fbd_network, 360), (sym_c_style_comment, 3), (sym_pascal_style_comment, 3),
     (sym_pragma, 3)]"

lemma ts_parse_row_552_scan: "row_scan tokens_63_2 0 ts_parse_row_552 = Some (Suc (Suc (Suc (Suc 0))))"
  unfolding ts_parse_row_552_def by simp

text \<open>Lines 117698 to 117810.\<close>

definition ts_parse_row_553 :: parse_row where
  "ts_parse_row_553 =
    [(sym_ERR_assign_func_call, 7530), (sym_ERR_unexpected_this_in_path, 2372),
     (sym_ERR_unexpected_super_in_path, 2372), (sym_ERR_fb_variables_after_method, 1480),
     (sym_ERR_var_access_not_allowed, 3160), (sym_ERR_var_config_not_allowed, 3160),
     (sym_ERR_var_global_not_allowed, 3160), (sym_ERR_method_decl_in_body, 3150),
     (sym_extern_pragma, 7490), (sym_wasm_pragma, 3150), (sym_warn_pragma, 7490),
     (sym_allow_pragma, 3140), (sym_test_pragma, 7490), (sym_once_pragma, 7490),
     (sym_must_call_pragma, 7490), (sym_export_pragma, 7490), (sym_pou_pragma, 7194),
     (sym_direct_variable, 7675), (sym_deref_expression, 2373), (sym_variable, 7599),
     (sym_var_access, 2373), (sym_in_out_decls, 3160), (sym_var_decls, 3160),
     (sym_retain_var_decls, 3160), (sym_temp_var_decls, 3160), (sym_external_var_decls, 3160),
     (sym_global_var_decls, 2947), (sym_loc_partly_var_decl, 3160), (sym__fb_variables, 2343),
     (sym_fb_input_decls, 3160), (sym_fb_output_decls, 3160), (sym_no_retain_var_decls, 3160),
     (sym_fb_body, 8659), (sym_method_decl, 2549), (sym_prog_access_decls, 3043), (sym_SFC, 7970),
     (sym_SFC_network, 7612), (sym_initial_step, 7439), (sym_config_init, 3047),
     (sym_variable_access, 7530), (sym_func_call, 2961), (sym_stmt_list, 7970), (sym__stmt, 2024),
     (sym_assign, 3150), (sym_if_stmt, 3150), (sym_case_stmt, 3150), (sym_for_stmt, 3150),
     (sym_while_stmt, 3150), (sym_repeat_stmt, 3150), (sym_raise_stmt, 3150), (sym_try_stmt, 3150),
     (sym_ERR_clause_outside_try, 3150), (sym_begin_path_expression, 2943), (sym_invocation, 2934),
     (sym_any_invocation, 2935), (sym_this_invocation, 2641), (sym_super_invocation, 2641),
     (sym_super_body_invocation, 2935), (sym_path_expression, 2627), (sym_field_expression, 2373),
     (sym_index_expression, 2373), (sym_ladder_diagram, 7970), (sym_fb_diagram, 7970),
     (aux_sym_ERR_fb_variables_after_method_repeat1, 2343), (aux_sym_func_decl_repeat1, 7194),
     (aux_sym_fb_decl_repeat3, 2549), (aux_sym_SFC_repeat1, 7612),
     (aux_sym_stmt_list_repeat1, 2024), (aux_sym_ladder_diagram_repeat1, 8009),
     (aux_sym_fb_diagram_repeat1, 8013), (sym_identifier, 298),
     (aux_sym_ERR_unexpected_this_in_path_token1, 304),
     (aux_sym_ERR_unexpected_super_in_path_token1, 306), (sym_line_comment, 3),
     (anon_sym_LBRACE, 308), (aux_sym_test_pragma_token1, 9), (aux_sym_once_pragma_token1, 11),
     (aux_sym_must_call_pragma_token1, 13), (aux_sym_export_pragma_token1, 15),
     (anon_sym_SEMI, 310), (anon_sym_PERCENT, 312), (aux_sym_input_decls_token1, 314),
     (aux_sym_output_decls_token1, 316), (aux_sym_in_out_decls_token1, 318),
     (aux_sym_var_decls_token1, 320), (aux_sym_temp_var_decls_token1, 322),
     (aux_sym_external_var_decls_token1, 324), (aux_sym_global_var_decls_token1, 326),
     (aux_sym_fb_decl_token4, 1436), (aux_sym_method_decl_token1, 330),
     (aux_sym_prog_access_decls_token1, 332), (aux_sym_initial_step_token1, 334),
     (aux_sym_config_init_token1, 336), (aux_sym__stmt_token1, 340), (aux_sym__stmt_token2, 340),
     (aux_sym__stmt_token3, 340), (aux_sym_if_stmt_token1, 342), (aux_sym_case_stmt_token1, 344),
     (aux_sym_for_stmt_token1, 346), (aux_sym_while_stmt_token1, 348),
     (aux_sym_repeat_stmt_token1, 350), (aux_sym_raise_stmt_token1, 352),
     (aux_sym_try_stmt_token1, 354), (aux_sym_try_stmt_token2, 356),
     (aux_sym_catch_clause_token1, 356), (aux_sym_finally_clause_token1, 356), (sym_ld_rung, 358),
     (sym_fbd_network, 360), (sym_c_style_comment, 3), (sym_pascal_style_comment, 3),
     (sym_pragma, 3)]"

lemma ts_parse_row_553_scan: "row_scan tokens_63_2 0 ts_parse_row_553 = Some (Suc (Suc (Suc (Suc 0))))"
  unfolding ts_parse_row_553_def by simp

text \<open>Lines 117811 to 117923.\<close>

definition ts_parse_row_554 :: parse_row where
  "ts_parse_row_554 =
    [(sym_ERR_assign_func_call, 7530), (sym_ERR_unexpected_this_in_path, 2372),
     (sym_ERR_unexpected_super_in_path, 2372), (sym_ERR_fb_variables_after_method, 1481),
     (sym_ERR_var_access_not_allowed, 3160), (sym_ERR_var_config_not_allowed, 3160),
     (sym_ERR_var_global_not_allowed, 3160), (sym_ERR_method_decl_in_body, 3150),
     (sym_extern_pragma, 7490), (sym_wasm_pragma, 3150), (sym_warn_pragma, 7490),
     (sym_allow_pragma, 3140), (sym_test_pragma, 7490), (sym_once_pragma, 7490),
     (sym_must_call_pragma, 7490), (sym_export_pragma, 7490), (sym_pou_pragma, 7194),
     (sym_direct_variable, 7675), (sym_deref_expression, 2373), (sym_variable, 7599),
     (sym_var_access, 2373), (sym_in_out_decls, 3160), (sym_var_decls, 3160),
     (sym_retain_var_decls, 3160), (sym_temp_var_decls, 3160), (sym_external_var_decls, 3160),
     (sym_global_var_decls, 2947), (sym_loc_partly_var_decl, 3160), (sym__fb_variables, 2343),
     (sym_fb_input_decls, 3160), (sym_fb_output_decls, 3160), (sym_no_retain_var_decls, 3160),
     (sym_fb_body, 8673), (sym_method_decl, 2549), (sym_prog_access_decls, 3043), (sym_SFC, 7970),
     (sym_SFC_network, 7612), (sym_initial_step, 7439), (sym_config_init, 3047),
     (sym_variable_access, 7530), (sym_func_call, 2961), (sym_stmt_list, 7970), (sym__stmt, 2024),
     (sym_assign, 3150), (sym_if_stmt, 3150), (sym_case_stmt, 3150), (sym_for_stmt, 3150),
     (sym_while_stmt, 3150), (sym_repeat_stmt, 3150), (sym_raise_stmt, 3150), (sym_try_stmt, 3150),
     (sym_ERR_clause_outside_try, 3150), (sym_begin_path_expression, 2943), (sym_invocation, 2934),
     (sym_any_invocation, 2935), (sym_this_invocation, 2641), (sym_super_invocation, 2641),
     (sym_super_body_invocation, 2935), (sym_path_expression, 2627), (sym_field_expression, 2373),
     (sym_index_expression, 2373), (sym_ladder_diagram, 7970), (sym_fb_diagram, 7970),
     (aux_sym_ERR_fb_variables_after_method_repeat1, 2343), (aux_sym_func_decl_repeat1, 7194),
     (aux_sym_fb_decl_repeat3, 2549), (aux_sym_SFC_repeat1, 7612),
     (aux_sym_stmt_list_repeat1, 2024), (aux_sym_ladder_diagram_repeat1, 8009),
     (aux_sym_fb_diagram_repeat1, 8013), (sym_identifier, 298),
     (aux_sym_ERR_unexpected_this_in_path_token1, 304),
     (aux_sym_ERR_unexpected_super_in_path_token1, 306), (sym_line_comment, 3),
     (anon_sym_LBRACE, 308), (aux_sym_test_pragma_token1, 9), (aux_sym_once_pragma_token1, 11),
     (aux_sym_must_call_pragma_token1, 13), (aux_sym_export_pragma_token1, 15),
     (anon_sym_SEMI, 310), (anon_sym_PERCENT, 312), (aux_sym_input_decls_token1, 314),
     (aux_sym_output_decls_token1, 316), (aux_sym_in_out_decls_token1, 318),
     (aux_sym_var_decls_token1, 320), (aux_sym_temp_var_decls_token1, 322),
     (aux_sym_external_var_decls_token1, 324), (aux_sym_global_var_decls_token1, 326),
     (aux_sym_fb_decl_token4, 1438), (aux_sym_method_decl_token1, 330),
     (aux_sym_prog_access_decls_token1, 332), (aux_sym_initial_step_token1, 334),
     (aux_sym_config_init_token1, 336), (aux_sym__stmt_token1, 340), (aux_sym__stmt_token2, 340),
     (aux_sym__stmt_token3, 340), (aux_sym_if_stmt_token1, 342), (aux_sym_case_stmt_token1, 344),
     (aux_sym_for_stmt_token1, 346), (aux_sym_while_stmt_token1, 348),
     (aux_sym_repeat_stmt_token1, 350), (aux_sym_raise_stmt_token1, 352),
     (aux_sym_try_stmt_token1, 354), (aux_sym_try_stmt_token2, 356),
     (aux_sym_catch_clause_token1, 356), (aux_sym_finally_clause_token1, 356), (sym_ld_rung, 358),
     (sym_fbd_network, 360), (sym_c_style_comment, 3), (sym_pascal_style_comment, 3),
     (sym_pragma, 3)]"

lemma ts_parse_row_554_scan: "row_scan tokens_63_2 0 ts_parse_row_554 = Some (Suc (Suc (Suc (Suc 0))))"
  unfolding ts_parse_row_554_def by simp

text \<open>Lines 117924 to 118036.\<close>

definition ts_parse_row_555 :: parse_row where
  "ts_parse_row_555 =
    [(sym_ERR_assign_func_call, 7530), (sym_ERR_unexpected_this_in_path, 2372),
     (sym_ERR_unexpected_super_in_path, 2372), (sym_ERR_fb_variables_after_method, 1667),
     (sym_ERR_var_access_not_allowed, 3160), (sym_ERR_var_config_not_allowed, 3160),
     (sym_ERR_var_global_not_allowed, 3160), (sym_ERR_method_decl_in_body, 3150),
     (sym_extern_pragma, 7490), (sym_wasm_pragma, 3150), (sym_warn_pragma, 7490),
     (sym_allow_pragma, 3140), (sym_test_pragma, 7490), (sym_once_pragma, 7490),
     (sym_must_call_pragma, 7490), (sym_export_pragma, 7490), (sym_pou_pragma, 7194),
     (sym_direct_variable, 7675), (sym_deref_expression, 2373), (sym_variable, 7599),
     (sym_var_access, 2373), (sym_in_out_decls, 3160), (sym_var_decls, 3160),
     (sym_retain_var_decls, 3160), (sym_temp_var_decls, 3160), (sym_external_var_decls, 3160),
     (sym_global_var_decls, 2947), (sym_loc_partly_var_decl, 3160), (sym__fb_variables, 2343),
     (sym_fb_input_decls, 3160), (sym_fb_output_decls, 3160), (sym_no_retain_var_decls, 3160),
     (sym_fb_body, 8960), (sym_method_decl, 2549), (sym_prog_access_decls, 3043), (sym_SFC, 7970),
     (sym_SFC_network, 7612), (sym_initial_step, 7439), (sym_config_init, 3047),
     (sym_variable_access, 7530), (sym_func_call, 2961), (sym_stmt_list, 7970), (sym__stmt, 2024),
     (sym_assign, 3150), (sym_if_stmt, 3150), (sym_case_stmt, 3150), (sym_for_stmt, 3150),
     (sym_while_stmt, 3150), (sym_repeat_stmt, 3150), (sym_raise_stmt, 3150), (sym_try_stmt, 3150),
     (sym_ERR_clause_outside_try, 3150), (sym_begin_path_expression, 2943), (sym_invocation, 2934),
     (sym_any_invocation, 2935), (sym_this_invocation, 2641), (sym_super_invocation, 2641),
     (sym_super_body_invocation, 2935), (sym_path_expression, 2627), (sym_field_expression, 2373),
     (sym_index_expression, 2373), (sym_ladder_diagram, 7970), (sym_fb_diagram, 7970),
     (aux_sym_ERR_fb_variables_after_method_repeat1, 2343), (aux_sym_func_decl_repeat1, 7194),
     (aux_sym_fb_decl_repeat3, 2549), (aux_sym_SFC_repeat1, 7612),
     (aux_sym_stmt_list_repeat1, 2024), (aux_sym_ladder_diagram_repeat1, 8009),
     (aux_sym_fb_diagram_repeat1, 8013), (sym_identifier, 298),
     (aux_sym_ERR_unexpected_this_in_path_token1, 304),
     (aux_sym_ERR_unexpected_super_in_path_token1, 306), (sym_line_comment, 3),
     (anon_sym_LBRACE, 308), (aux_sym_test_pragma_token1, 9), (aux_sym_once_pragma_token1, 11),
     (aux_sym_must_call_pragma_token1, 13), (aux_sym_export_pragma_token1, 15),
     (anon_sym_SEMI, 310), (anon_sym_PERCENT, 312), (aux_sym_input_decls_token1, 314),
     (aux_sym_output_decls_token1, 316), (aux_sym_in_out_decls_token1, 318),
     (aux_sym_var_decls_token1, 320), (aux_sym_temp_var_decls_token1, 322),
     (aux_sym_external_var_decls_token1, 324), (aux_sym_global_var_decls_token1, 326),
     (aux_sym_fb_decl_token4, 1440), (aux_sym_method_decl_token1, 330),
     (aux_sym_prog_access_decls_token1, 332), (aux_sym_initial_step_token1, 334),
     (aux_sym_config_init_token1, 336), (aux_sym__stmt_token1, 340), (aux_sym__stmt_token2, 340),
     (aux_sym__stmt_token3, 340), (aux_sym_if_stmt_token1, 342), (aux_sym_case_stmt_token1, 344),
     (aux_sym_for_stmt_token1, 346), (aux_sym_while_stmt_token1, 348),
     (aux_sym_repeat_stmt_token1, 350), (aux_sym_raise_stmt_token1, 352),
     (aux_sym_try_stmt_token1, 354), (aux_sym_try_stmt_token2, 356),
     (aux_sym_catch_clause_token1, 356), (aux_sym_finally_clause_token1, 356), (sym_ld_rung, 358),
     (sym_fbd_network, 360), (sym_c_style_comment, 3), (sym_pascal_style_comment, 3),
     (sym_pragma, 3)]"

lemma ts_parse_row_555_scan: "row_scan tokens_63_2 0 ts_parse_row_555 = Some (Suc (Suc (Suc (Suc 0))))"
  unfolding ts_parse_row_555_def by simp

text \<open>Lines 118037 to 118149.\<close>

definition ts_parse_row_556 :: parse_row where
  "ts_parse_row_556 =
    [(sym_ERR_assign_func_call, 7530), (sym_ERR_unexpected_this_in_path, 2372),
     (sym_ERR_unexpected_super_in_path, 2372), (sym_ERR_fb_variables_after_method, 1486),
     (sym_ERR_var_access_not_allowed, 3160), (sym_ERR_var_config_not_allowed, 3160),
     (sym_ERR_var_global_not_allowed, 3160), (sym_ERR_method_decl_in_body, 3150),
     (sym_extern_pragma, 7490), (sym_wasm_pragma, 3150), (sym_warn_pragma, 7490),
     (sym_allow_pragma, 3140), (sym_test_pragma, 7490), (sym_once_pragma, 7490),
     (sym_must_call_pragma, 7490), (sym_export_pragma, 7490), (sym_pou_pragma, 7194),
     (sym_direct_variable, 7675), (sym_deref_expression, 2373), (sym_variable, 7599),
     (sym_var_access, 2373), (sym_in_out_decls, 3160), (sym_var_decls, 3160),
     (sym_retain_var_decls, 3160), (sym_temp_var_decls, 3160), (sym_external_var_decls, 3160),
     (sym_global_var_decls, 2947), (sym_loc_partly_var_decl, 3160), (sym__fb_variables, 2343),
     (sym_fb_input_decls, 3160), (sym_fb_output_decls, 3160), (sym_no_retain_var_decls, 3160),
     (sym_fb_body, 8695), (sym_method_decl, 2549), (sym_prog_access_decls, 3043), (sym_SFC, 7970),
     (sym_SFC_network, 7612), (sym_initial_step, 7439), (sym_config_init, 3047),
     (sym_variable_access, 7530), (sym_func_call, 2961), (sym_stmt_list, 7970), (sym__stmt, 2024),
     (sym_assign, 3150), (sym_if_stmt, 3150), (sym_case_stmt, 3150), (sym_for_stmt, 3150),
     (sym_while_stmt, 3150), (sym_repeat_stmt, 3150), (sym_raise_stmt, 3150), (sym_try_stmt, 3150),
     (sym_ERR_clause_outside_try, 3150), (sym_begin_path_expression, 2943), (sym_invocation, 2934),
     (sym_any_invocation, 2935), (sym_this_invocation, 2641), (sym_super_invocation, 2641),
     (sym_super_body_invocation, 2935), (sym_path_expression, 2627), (sym_field_expression, 2373),
     (sym_index_expression, 2373), (sym_ladder_diagram, 7970), (sym_fb_diagram, 7970),
     (aux_sym_ERR_fb_variables_after_method_repeat1, 2343), (aux_sym_func_decl_repeat1, 7194),
     (aux_sym_fb_decl_repeat3, 2549), (aux_sym_SFC_repeat1, 7612),
     (aux_sym_stmt_list_repeat1, 2024), (aux_sym_ladder_diagram_repeat1, 8009),
     (aux_sym_fb_diagram_repeat1, 8013), (sym_identifier, 298),
     (aux_sym_ERR_unexpected_this_in_path_token1, 304),
     (aux_sym_ERR_unexpected_super_in_path_token1, 306), (sym_line_comment, 3),
     (anon_sym_LBRACE, 308), (aux_sym_test_pragma_token1, 9), (aux_sym_once_pragma_token1, 11),
     (aux_sym_must_call_pragma_token1, 13), (aux_sym_export_pragma_token1, 15),
     (anon_sym_SEMI, 310), (anon_sym_PERCENT, 312), (aux_sym_input_decls_token1, 314),
     (aux_sym_output_decls_token1, 316), (aux_sym_in_out_decls_token1, 318),
     (aux_sym_var_decls_token1, 320), (aux_sym_temp_var_decls_token1, 322),
     (aux_sym_external_var_decls_token1, 324), (aux_sym_global_var_decls_token1, 326),
     (aux_sym_fb_decl_token4, 1442), (aux_sym_method_decl_token1, 330),
     (aux_sym_prog_access_decls_token1, 332), (aux_sym_initial_step_token1, 334),
     (aux_sym_config_init_token1, 336), (aux_sym__stmt_token1, 340), (aux_sym__stmt_token2, 340),
     (aux_sym__stmt_token3, 340), (aux_sym_if_stmt_token1, 342), (aux_sym_case_stmt_token1, 344),
     (aux_sym_for_stmt_token1, 346), (aux_sym_while_stmt_token1, 348),
     (aux_sym_repeat_stmt_token1, 350), (aux_sym_raise_stmt_token1, 352),
     (aux_sym_try_stmt_token1, 354), (aux_sym_try_stmt_token2, 356),
     (aux_sym_catch_clause_token1, 356), (aux_sym_finally_clause_token1, 356), (sym_ld_rung, 358),
     (sym_fbd_network, 360), (sym_c_style_comment, 3), (sym_pascal_style_comment, 3),
     (sym_pragma, 3)]"

lemma ts_parse_row_556_scan: "row_scan tokens_63_2 0 ts_parse_row_556 = Some (Suc (Suc (Suc (Suc 0))))"
  unfolding ts_parse_row_556_def by simp

text \<open>Lines 118150 to 118262.\<close>

definition ts_parse_row_557 :: parse_row where
  "ts_parse_row_557 =
    [(sym_ERR_assign_func_call, 7530), (sym_ERR_unexpected_this_in_path, 2372),
     (sym_ERR_unexpected_super_in_path, 2372), (sym_ERR_fb_variables_after_method, 1487),
     (sym_ERR_var_access_not_allowed, 3160), (sym_ERR_var_config_not_allowed, 3160),
     (sym_ERR_var_global_not_allowed, 3160), (sym_ERR_method_decl_in_body, 3150),
     (sym_extern_pragma, 7490), (sym_wasm_pragma, 3150), (sym_warn_pragma, 7490),
     (sym_allow_pragma, 3140), (sym_test_pragma, 7490), (sym_once_pragma, 7490),
     (sym_must_call_pragma, 7490), (sym_export_pragma, 7490), (sym_pou_pragma, 7194),
     (sym_direct_variable, 7675), (sym_deref_expression, 2373), (sym_variable, 7599),
     (sym_var_access, 2373), (sym_in_out_decls, 3160), (sym_var_decls, 3160),
     (sym_retain_var_decls, 3160), (sym_temp_var_decls, 3160), (sym_external_var_decls, 3160),
     (sym_global_var_decls, 2947), (sym_loc_partly_var_decl, 3160), (sym__fb_variables, 2347),
     (sym_fb_input_decls, 3160), (sym_fb_output_decls, 3160), (sym_no_retain_var_decls, 3160),
     (sym_fb_body, 8712), (sym_method_decl, 682), (sym_prog_access_decls, 3043), (sym_SFC, 7970),
     (sym_SFC_network, 7612), (sym_initial_step, 7439), (sym_config_init, 3047),
     (sym_variable_access, 7530), (sym_func_call, 2961), (sym_stmt_list, 7970), (sym__stmt, 2024),
     (sym_assign, 3150), (sym_if_stmt, 3150), (sym_case_stmt, 3150), (sym_for_stmt, 3150),
     (sym_while_stmt, 3150), (sym_repeat_stmt, 3150), (sym_raise_stmt, 3150), (sym_try_stmt, 3150),
     (sym_ERR_clause_outside_try, 3150), (sym_begin_path_expression, 2943), (sym_invocation, 2934),
     (sym_any_invocation, 2935), (sym_this_invocation, 2641), (sym_super_invocation, 2641),
     (sym_super_body_invocation, 2935), (sym_path_expression, 2627), (sym_field_expression, 2373),
     (sym_index_expression, 2373), (sym_ladder_diagram, 7970), (sym_fb_diagram, 7970),
     (aux_sym_ERR_fb_variables_after_method_repeat1, 2347), (aux_sym_func_decl_repeat1, 7194),
     (aux_sym_fb_decl_repeat3, 682), (aux_sym_SFC_repeat1, 7612), (aux_sym_stmt_list_repeat1, 2024),
     (aux_sym_ladder_diagram_repeat1, 8009), (aux_sym_fb_diagram_repeat1, 8013),
     (sym_identifier, 298), (aux_sym_ERR_unexpected_this_in_path_token1, 304),
     (aux_sym_ERR_unexpected_super_in_path_token1, 306), (sym_line_comment, 3),
     (anon_sym_LBRACE, 308), (aux_sym_test_pragma_token1, 9), (aux_sym_once_pragma_token1, 11),
     (aux_sym_must_call_pragma_token1, 13), (aux_sym_export_pragma_token1, 15),
     (anon_sym_SEMI, 310), (anon_sym_PERCENT, 312), (aux_sym_input_decls_token1, 314),
     (aux_sym_output_decls_token1, 316), (aux_sym_in_out_decls_token1, 318),
     (aux_sym_var_decls_token1, 320), (aux_sym_temp_var_decls_token1, 322),
     (aux_sym_external_var_decls_token1, 324), (aux_sym_global_var_decls_token1, 326),
     (aux_sym_fb_decl_token4, 1444), (aux_sym_method_decl_token1, 330),
     (aux_sym_prog_access_decls_token1, 332), (aux_sym_initial_step_token1, 334),
     (aux_sym_config_init_token1, 336), (aux_sym__stmt_token1, 340), (aux_sym__stmt_token2, 340),
     (aux_sym__stmt_token3, 340), (aux_sym_if_stmt_token1, 342), (aux_sym_case_stmt_token1, 344),
     (aux_sym_for_stmt_token1, 346), (aux_sym_while_stmt_token1, 348),
     (aux_sym_repeat_stmt_token1, 350), (aux_sym_raise_stmt_token1, 352),
     (aux_sym_try_stmt_token1, 354), (aux_sym_try_stmt_token2, 356),
     (aux_sym_catch_clause_token1, 356), (aux_sym_finally_clause_token1, 356), (sym_ld_rung, 358),
     (sym_fbd_network, 360), (sym_c_style_comment, 3), (sym_pascal_style_comment, 3),
     (sym_pragma, 3)]"

lemma ts_parse_row_557_scan: "row_scan tokens_63_2 0 ts_parse_row_557 = Some (Suc (Suc (Suc (Suc 0))))"
  unfolding ts_parse_row_557_def by simp

text \<open>Lines 118263 to 118375.\<close>

definition ts_parse_row_558 :: parse_row where
  "ts_parse_row_558 =
    [(sym_ERR_assign_func_call, 7530), (sym_ERR_unexpected_this_in_path, 2372),
     (sym_ERR_unexpected_super_in_path, 2372), (sym_ERR_fb_variables_after_method, 1488),
     (sym_ERR_var_access_not_allowed, 3160), (sym_ERR_var_config_not_allowed, 3160),
     (sym_ERR_var_global_not_allowed, 3160), (sym_ERR_method_decl_in_body, 3150),
     (sym_extern_pragma, 7490), (sym_wasm_pragma, 3150), (sym_warn_pragma, 7490),
     (sym_allow_pragma, 3140), (sym_test_pragma, 7490), (sym_once_pragma, 7490),
     (sym_must_call_pragma, 7490), (sym_export_pragma, 7490), (sym_pou_pragma, 7194),
     (sym_direct_variable, 7675), (sym_deref_expression, 2373), (sym_variable, 7599),
     (sym_var_access, 2373), (sym_in_out_decls, 3160), (sym_var_decls, 3160),
     (sym_retain_var_decls, 3160), (sym_temp_var_decls, 3160), (sym_external_var_decls, 3160),
     (sym_global_var_decls, 2947), (sym_loc_partly_var_decl, 3160), (sym__fb_variables, 2343),
     (sym_fb_input_decls, 3160), (sym_fb_output_decls, 3160), (sym_no_retain_var_decls, 3160),
     (sym_fb_body, 8717), (sym_method_decl, 2549), (sym_prog_access_decls, 3043), (sym_SFC, 7970),
     (sym_SFC_network, 7612), (sym_initial_step, 7439), (sym_config_init, 3047),
     (sym_variable_access, 7530), (sym_func_call, 2961), (sym_stmt_list, 7970), (sym__stmt, 2024),
     (sym_assign, 3150), (sym_if_stmt, 3150), (sym_case_stmt, 3150), (sym_for_stmt, 3150),
     (sym_while_stmt, 3150), (sym_repeat_stmt, 3150), (sym_raise_stmt, 3150), (sym_try_stmt, 3150),
     (sym_ERR_clause_outside_try, 3150), (sym_begin_path_expression, 2943), (sym_invocation, 2934),
     (sym_any_invocation, 2935), (sym_this_invocation, 2641), (sym_super_invocation, 2641),
     (sym_super_body_invocation, 2935), (sym_path_expression, 2627), (sym_field_expression, 2373),
     (sym_index_expression, 2373), (sym_ladder_diagram, 7970), (sym_fb_diagram, 7970),
     (aux_sym_ERR_fb_variables_after_method_repeat1, 2343), (aux_sym_func_decl_repeat1, 7194),
     (aux_sym_fb_decl_repeat3, 2549), (aux_sym_SFC_repeat1, 7612),
     (aux_sym_stmt_list_repeat1, 2024), (aux_sym_ladder_diagram_repeat1, 8009),
     (aux_sym_fb_diagram_repeat1, 8013), (sym_identifier, 298),
     (aux_sym_ERR_unexpected_this_in_path_token1, 304),
     (aux_sym_ERR_unexpected_super_in_path_token1, 306), (sym_line_comment, 3),
     (anon_sym_LBRACE, 308), (aux_sym_test_pragma_token1, 9), (aux_sym_once_pragma_token1, 11),
     (aux_sym_must_call_pragma_token1, 13), (aux_sym_export_pragma_token1, 15),
     (anon_sym_SEMI, 310), (anon_sym_PERCENT, 312), (aux_sym_input_decls_token1, 314),
     (aux_sym_output_decls_token1, 316), (aux_sym_in_out_decls_token1, 318),
     (aux_sym_var_decls_token1, 320), (aux_sym_temp_var_decls_token1, 322),
     (aux_sym_external_var_decls_token1, 324), (aux_sym_global_var_decls_token1, 326),
     (aux_sym_fb_decl_token4, 1446), (aux_sym_method_decl_token1, 330),
     (aux_sym_prog_access_decls_token1, 332), (aux_sym_initial_step_token1, 334),
     (aux_sym_config_init_token1, 336), (aux_sym__stmt_token1, 340), (aux_sym__stmt_token2, 340),
     (aux_sym__stmt_token3, 340), (aux_sym_if_stmt_token1, 342), (aux_sym_case_stmt_token1, 344),
     (aux_sym_for_stmt_token1, 346), (aux_sym_while_stmt_token1, 348),
     (aux_sym_repeat_stmt_token1, 350), (aux_sym_raise_stmt_token1, 352),
     (aux_sym_try_stmt_token1, 354), (aux_sym_try_stmt_token2, 356),
     (aux_sym_catch_clause_token1, 356), (aux_sym_finally_clause_token1, 356), (sym_ld_rung, 358),
     (sym_fbd_network, 360), (sym_c_style_comment, 3), (sym_pascal_style_comment, 3),
     (sym_pragma, 3)]"

lemma ts_parse_row_558_scan: "row_scan tokens_63_2 0 ts_parse_row_558 = Some (Suc (Suc (Suc (Suc 0))))"
  unfolding ts_parse_row_558_def by simp

text \<open>Lines 118376 to 118488.\<close>

definition ts_parse_row_559 :: parse_row where
  "ts_parse_row_559 =
    [(sym_ERR_assign_func_call, 7530), (sym_ERR_unexpected_this_in_path, 2372),
     (sym_ERR_unexpected_super_in_path, 2372), (sym_ERR_fb_variables_after_method, 1489),
     (sym_ERR_var_access_not_allowed, 3160), (sym_ERR_var_config_not_allowed, 3160),
     (sym_ERR_var_global_not_allowed, 3160), (sym_ERR_method_decl_in_body, 3150),
     (sym_extern_pragma, 7490), (sym_wasm_pragma, 3150), (sym_warn_pragma, 7490),
     (sym_allow_pragma, 3140), (sym_test_pragma, 7490), (sym_once_pragma, 7490),
     (sym_must_call_pragma, 7490), (sym_export_pragma, 7490), (sym_pou_pragma, 7194),
     (sym_direct_variable, 7675), (sym_deref_expression, 2373), (sym_variable, 7599),
     (sym_var_access, 2373), (sym_in_out_decls, 3160), (sym_var_decls, 3160),
     (sym_retain_var_decls, 3160), (sym_temp_var_decls, 3160), (sym_external_var_decls, 3160),
     (sym_global_var_decls, 2947), (sym_loc_partly_var_decl, 3160), (sym__fb_variables, 2347),
     (sym_fb_input_decls, 3160), (sym_fb_output_decls, 3160), (sym_no_retain_var_decls, 3160),
     (sym_fb_body, 8723), (sym_method_decl, 683), (sym_prog_access_decls, 3043), (sym_SFC, 7970),
     (sym_SFC_network, 7612), (sym_initial_step, 7439), (sym_config_init, 3047),
     (sym_variable_access, 7530), (sym_func_call, 2961), (sym_stmt_list, 7970), (sym__stmt, 2024),
     (sym_assign, 3150), (sym_if_stmt, 3150), (sym_case_stmt, 3150), (sym_for_stmt, 3150),
     (sym_while_stmt, 3150), (sym_repeat_stmt, 3150), (sym_raise_stmt, 3150), (sym_try_stmt, 3150),
     (sym_ERR_clause_outside_try, 3150), (sym_begin_path_expression, 2943), (sym_invocation, 2934),
     (sym_any_invocation, 2935), (sym_this_invocation, 2641), (sym_super_invocation, 2641),
     (sym_super_body_invocation, 2935), (sym_path_expression, 2627), (sym_field_expression, 2373),
     (sym_index_expression, 2373), (sym_ladder_diagram, 7970), (sym_fb_diagram, 7970),
     (aux_sym_ERR_fb_variables_after_method_repeat1, 2347), (aux_sym_func_decl_repeat1, 7194),
     (aux_sym_fb_decl_repeat3, 683), (aux_sym_SFC_repeat1, 7612), (aux_sym_stmt_list_repeat1, 2024),
     (aux_sym_ladder_diagram_repeat1, 8009), (aux_sym_fb_diagram_repeat1, 8013),
     (sym_identifier, 298), (aux_sym_ERR_unexpected_this_in_path_token1, 304),
     (aux_sym_ERR_unexpected_super_in_path_token1, 306), (sym_line_comment, 3),
     (anon_sym_LBRACE, 308), (aux_sym_test_pragma_token1, 9), (aux_sym_once_pragma_token1, 11),
     (aux_sym_must_call_pragma_token1, 13), (aux_sym_export_pragma_token1, 15),
     (anon_sym_SEMI, 310), (anon_sym_PERCENT, 312), (aux_sym_input_decls_token1, 314),
     (aux_sym_output_decls_token1, 316), (aux_sym_in_out_decls_token1, 318),
     (aux_sym_var_decls_token1, 320), (aux_sym_temp_var_decls_token1, 322),
     (aux_sym_external_var_decls_token1, 324), (aux_sym_global_var_decls_token1, 326),
     (aux_sym_fb_decl_token4, 1448), (aux_sym_method_decl_token1, 330),
     (aux_sym_prog_access_decls_token1, 332), (aux_sym_initial_step_token1, 334),
     (aux_sym_config_init_token1, 336), (aux_sym__stmt_token1, 340), (aux_sym__stmt_token2, 340),
     (aux_sym__stmt_token3, 340), (aux_sym_if_stmt_token1, 342), (aux_sym_case_stmt_token1, 344),
     (aux_sym_for_stmt_token1, 346), (aux_sym_while_stmt_token1, 348),
     (aux_sym_repeat_stmt_token1, 350), (aux_sym_raise_stmt_token1, 352),
     (aux_sym_try_stmt_token1, 354), (aux_sym_try_stmt_token2, 356),
     (aux_sym_catch_clause_token1, 356), (aux_sym_finally_clause_token1, 356), (sym_ld_rung, 358),
     (sym_fbd_network, 360), (sym_c_style_comment, 3), (sym_pascal_style_comment, 3),
     (sym_pragma, 3)]"

lemma ts_parse_row_559_scan: "row_scan tokens_63_2 0 ts_parse_row_559 = Some (Suc (Suc (Suc (Suc 0))))"
  unfolding ts_parse_row_559_def by simp

text \<open>Lines 118489 to 118601.\<close>

definition ts_parse_row_560 :: parse_row where
  "ts_parse_row_560 =
    [(sym_ERR_assign_func_call, 7530), (sym_ERR_unexpected_this_in_path, 2372),
     (sym_ERR_unexpected_super_in_path, 2372), (sym_ERR_fb_variables_after_method, 1670),
     (sym_ERR_var_access_not_allowed, 3160), (sym_ERR_var_config_not_allowed, 3160),
     (sym_ERR_var_global_not_allowed, 3160), (sym_ERR_method_decl_in_body, 3150),
     (sym_extern_pragma, 7490), (sym_wasm_pragma, 3150), (sym_warn_pragma, 7490),
     (sym_allow_pragma, 3140), (sym_test_pragma, 7490), (sym_once_pragma, 7490),
     (sym_must_call_pragma, 7490), (sym_export_pragma, 7490), (sym_pou_pragma, 7194),
     (sym_direct_variable, 7675), (sym_deref_expression, 2373), (sym_variable, 7599),
     (sym_var_access, 2373), (sym_in_out_decls, 3160), (sym_var_decls, 3160),
     (sym_retain_var_decls, 3160), (sym_temp_var_decls, 3160), (sym_external_var_decls, 3160),
     (sym_global_var_decls, 2947), (sym_loc_partly_var_decl, 3160), (sym__fb_variables, 2343),
     (sym_fb_input_decls, 3160), (sym_fb_output_decls, 3160), (sym_no_retain_var_decls, 3160),
     (sym_fb_body, 8990), (sym_method_decl, 2549), (sym_prog_access_decls, 3043), (sym_SFC, 7970),
     (sym_SFC_network, 7612), (sym_initial_step, 7439), (sym_config_init, 3047),
     (sym_variable_access, 7530), (sym_func_call, 2961), (sym_stmt_list, 7970), (sym__stmt, 2024),
     (sym_assign, 3150), (sym_if_stmt, 3150), (sym_case_stmt, 3150), (sym_for_stmt, 3150),
     (sym_while_stmt, 3150), (sym_repeat_stmt, 3150), (sym_raise_stmt, 3150), (sym_try_stmt, 3150),
     (sym_ERR_clause_outside_try, 3150), (sym_begin_path_expression, 2943), (sym_invocation, 2934),
     (sym_any_invocation, 2935), (sym_this_invocation, 2641), (sym_super_invocation, 2641),
     (sym_super_body_invocation, 2935), (sym_path_expression, 2627), (sym_field_expression, 2373),
     (sym_index_expression, 2373), (sym_ladder_diagram, 7970), (sym_fb_diagram, 7970),
     (aux_sym_ERR_fb_variables_after_method_repeat1, 2343), (aux_sym_func_decl_repeat1, 7194),
     (aux_sym_fb_decl_repeat3, 2549), (aux_sym_SFC_repeat1, 7612),
     (aux_sym_stmt_list_repeat1, 2024), (aux_sym_ladder_diagram_repeat1, 8009),
     (aux_sym_fb_diagram_repeat1, 8013), (sym_identifier, 298),
     (aux_sym_ERR_unexpected_this_in_path_token1, 304),
     (aux_sym_ERR_unexpected_super_in_path_token1, 306), (sym_line_comment, 3),
     (anon_sym_LBRACE, 308), (aux_sym_test_pragma_token1, 9), (aux_sym_once_pragma_token1, 11),
     (aux_sym_must_call_pragma_token1, 13), (aux_sym_export_pragma_token1, 15),
     (anon_sym_SEMI, 310), (anon_sym_PERCENT, 312), (aux_sym_input_decls_token1, 314),
     (aux_sym_output_decls_token1, 316), (aux_sym_in_out_decls_token1, 318),
     (aux_sym_var_decls_token1, 320), (aux_sym_temp_var_decls_token1, 322),
     (aux_sym_external_var_decls_token1, 324), (aux_sym_global_var_decls_token1, 326),
     (aux_sym_fb_decl_token4, 1450), (aux_sym_method_decl_token1, 330),
     (aux_sym_prog_access_decls_token1, 332), (aux_sym_initial_step_token1, 334),
     (aux_sym_config_init_token1, 336), (aux_sym__stmt_token1, 340), (aux_sym__stmt_token2, 340),
     (aux_sym__stmt_token3, 340), (aux_sym_if_stmt_token1, 342), (aux_sym_case_stmt_token1, 344),
     (aux_sym_for_stmt_token1, 346), (aux_sym_while_stmt_token1, 348),
     (aux_sym_repeat_stmt_token1, 350), (aux_sym_raise_stmt_token1, 352),
     (aux_sym_try_stmt_token1, 354), (aux_sym_try_stmt_token2, 356),
     (aux_sym_catch_clause_token1, 356), (aux_sym_finally_clause_token1, 356), (sym_ld_rung, 358),
     (sym_fbd_network, 360), (sym_c_style_comment, 3), (sym_pascal_style_comment, 3),
     (sym_pragma, 3)]"

lemma ts_parse_row_560_scan: "row_scan tokens_63_2 0 ts_parse_row_560 = Some (Suc (Suc (Suc (Suc 0))))"
  unfolding ts_parse_row_560_def by simp

text \<open>Lines 118602 to 118714.\<close>

definition ts_parse_row_561 :: parse_row where
  "ts_parse_row_561 =
    [(sym_ERR_assign_func_call, 7530), (sym_ERR_unexpected_this_in_path, 2372),
     (sym_ERR_unexpected_super_in_path, 2372), (sym_ERR_fb_variables_after_method, 1493),
     (sym_ERR_var_access_not_allowed, 3160), (sym_ERR_var_config_not_allowed, 3160),
     (sym_ERR_var_global_not_allowed, 3160), (sym_ERR_method_decl_in_body, 3150),
     (sym_extern_pragma, 7490), (sym_wasm_pragma, 3150), (sym_warn_pragma, 7490),
     (sym_allow_pragma, 3140), (sym_test_pragma, 7490), (sym_once_pragma, 7490),
     (sym_must_call_pragma, 7490), (sym_export_pragma, 7490), (sym_pou_pragma, 7194),
     (sym_direct_variable, 7675), (sym_deref_expression, 2373), (sym_variable, 7599),
     (sym_var_access, 2373), (sym_in_out_decls, 3160), (sym_var_decls, 3160),
     (sym_retain_var_decls, 3160), (sym_temp_var_decls, 3160), (sym_external_var_decls, 3160),
     (sym_global_var_decls, 2947), (sym_loc_partly_var_decl, 3160), (sym__fb_variables, 2343),
     (sym_fb_input_decls, 3160), (sym_fb_output_decls, 3160), (sym_no_retain_var_decls, 3160),
     (sym_fb_body, 8736), (sym_method_decl, 2549), (sym_prog_access_decls, 3043), (sym_SFC, 7970),
     (sym_SFC_network, 7612), (sym_initial_step, 7439), (sym_config_init, 3047),
     (sym_variable_access, 7530), (sym_func_call, 2961), (sym_stmt_list, 7970), (sym__stmt, 2024),
     (sym_assign, 3150), (sym_if_stmt, 3150), (sym_case_stmt, 3150), (sym_for_stmt, 3150),
     (sym_while_stmt, 3150), (sym_repeat_stmt, 3150), (sym_raise_stmt, 3150), (sym_try_stmt, 3150),
     (sym_ERR_clause_outside_try, 3150), (sym_begin_path_expression, 2943), (sym_invocation, 2934),
     (sym_any_invocation, 2935), (sym_this_invocation, 2641), (sym_super_invocation, 2641),
     (sym_super_body_invocation, 2935), (sym_path_expression, 2627), (sym_field_expression, 2373),
     (sym_index_expression, 2373), (sym_ladder_diagram, 7970), (sym_fb_diagram, 7970),
     (aux_sym_ERR_fb_variables_after_method_repeat1, 2343), (aux_sym_func_decl_repeat1, 7194),
     (aux_sym_fb_decl_repeat3, 2549), (aux_sym_SFC_repeat1, 7612),
     (aux_sym_stmt_list_repeat1, 2024), (aux_sym_ladder_diagram_repeat1, 8009),
     (aux_sym_fb_diagram_repeat1, 8013), (sym_identifier, 298),
     (aux_sym_ERR_unexpected_this_in_path_token1, 304),
     (aux_sym_ERR_unexpected_super_in_path_token1, 306), (sym_line_comment, 3),
     (anon_sym_LBRACE, 308), (aux_sym_test_pragma_token1, 9), (aux_sym_once_pragma_token1, 11),
     (aux_sym_must_call_pragma_token1, 13), (aux_sym_export_pragma_token1, 15),
     (anon_sym_SEMI, 310), (anon_sym_PERCENT, 312), (aux_sym_input_decls_token1, 314),
     (aux_sym_output_decls_token1, 316), (aux_sym_in_out_decls_token1, 318),
     (aux_sym_var_decls_token1, 320), (aux_sym_temp_var_decls_token1, 322),
     (aux_sym_external_var_decls_token1, 324), (aux_sym_global_var_decls_token1, 326),
     (aux_sym_fb_decl_token4, 1452), (aux_sym_method_decl_token1, 330),
     (aux_sym_prog_access_decls_token1, 332), (aux_sym_initial_step_token1, 334),
     (aux_sym_config_init_token1, 336), (aux_sym__stmt_token1, 340), (aux_sym__stmt_token2, 340),
     (aux_sym__stmt_token3, 340), (aux_sym_if_stmt_token1, 342), (aux_sym_case_stmt_token1, 344),
     (aux_sym_for_stmt_token1, 346), (aux_sym_while_stmt_token1, 348),
     (aux_sym_repeat_stmt_token1, 350), (aux_sym_raise_stmt_token1, 352),
     (aux_sym_try_stmt_token1, 354), (aux_sym_try_stmt_token2, 356),
     (aux_sym_catch_clause_token1, 356), (aux_sym_finally_clause_token1, 356), (sym_ld_rung, 358),
     (sym_fbd_network, 360), (sym_c_style_comment, 3), (sym_pascal_style_comment, 3),
     (sym_pragma, 3)]"

lemma ts_parse_row_561_scan: "row_scan tokens_63_2 0 ts_parse_row_561 = Some (Suc (Suc (Suc (Suc 0))))"
  unfolding ts_parse_row_561_def by simp

text \<open>Lines 118715 to 118827.\<close>

definition ts_parse_row_562 :: parse_row where
  "ts_parse_row_562 =
    [(sym_ERR_assign_func_call, 7530), (sym_ERR_unexpected_this_in_path, 2372),
     (sym_ERR_unexpected_super_in_path, 2372), (sym_ERR_fb_variables_after_method, 1494),
     (sym_ERR_var_access_not_allowed, 3160), (sym_ERR_var_config_not_allowed, 3160),
     (sym_ERR_var_global_not_allowed, 3160), (sym_ERR_method_decl_in_body, 3150),
     (sym_extern_pragma, 7490), (sym_wasm_pragma, 3150), (sym_warn_pragma, 7490),
     (sym_allow_pragma, 3140), (sym_test_pragma, 7490), (sym_once_pragma, 7490),
     (sym_must_call_pragma, 7490), (sym_export_pragma, 7490), (sym_pou_pragma, 7194),
     (sym_direct_variable, 7675), (sym_deref_expression, 2373), (sym_variable, 7599),
     (sym_var_access, 2373), (sym_in_out_decls, 3160), (sym_var_decls, 3160),
     (sym_retain_var_decls, 3160), (sym_temp_var_decls, 3160), (sym_external_var_decls, 3160),
     (sym_global_var_decls, 2947), (sym_loc_partly_var_decl, 3160), (sym__fb_variables, 2343),
     (sym_fb_input_decls, 3160), (sym_fb_output_decls, 3160), (sym_no_retain_var_decls, 3160),
     (sym_fb_body, 8751), (sym_method_decl, 2549), (sym_prog_access_decls, 3043), (sym_SFC, 7970),
     (sym_SFC_network, 7612), (sym_initial_step, 7439), (sym_config_init, 3047),
     (sym_variable_access, 7530), (sym_func_call, 2961), (sym_stmt_list, 7970), (sym__stmt, 2024),
     (sym_assign, 3150), (sym_if_stmt, 3150), (sym_case_stmt, 3150), (sym_for_stmt, 3150),
     (sym_while_stmt, 3150), (sym_repeat_stmt, 3150), (sym_raise_stmt, 3150), (sym_try_stmt, 3150),
     (sym_ERR_clause_outside_try, 3150), (sym_begin_path_expression, 2943), (sym_invocation, 2934),
     (sym_any_invocation, 2935), (sym_this_invocation, 2641), (sym_super_invocation, 2641),
     (sym_super_body_invocation, 2935), (sym_path_expression, 2627), (sym_field_expression, 2373),
     (sym_index_expression, 2373), (sym_ladder_diagram, 7970), (sym_fb_diagram, 7970),
     (aux_sym_ERR_fb_variables_after_method_repeat1, 2343), (aux_sym_func_decl_repeat1, 7194),
     (aux_sym_fb_decl_repeat3, 2549), (aux_sym_SFC_repeat1, 7612),
     (aux_sym_stmt_list_repeat1, 2024), (aux_sym_ladder_diagram_repeat1, 8009),
     (aux_sym_fb_diagram_repeat1, 8013), (sym_identifier, 298),
     (aux_sym_ERR_unexpected_this_in_path_token1, 304),
     (aux_sym_ERR_unexpected_super_in_path_token1, 306), (sym_line_comment, 3),
     (anon_sym_LBRACE, 308), (aux_sym_test_pragma_token1, 9), (aux_sym_once_pragma_token1, 11),
     (aux_sym_must_call_pragma_token1, 13), (aux_sym_export_pragma_token1, 15),
     (anon_sym_SEMI, 310), (anon_sym_PERCENT, 312), (aux_sym_input_decls_token1, 314),
     (aux_sym_output_decls_token1, 316), (aux_sym_in_out_decls_token1, 318),
     (aux_sym_var_decls_token1, 320), (aux_sym_temp_var_decls_token1, 322),
     (aux_sym_external_var_decls_token1, 324), (aux_sym_global_var_decls_token1, 326),
     (aux_sym_fb_decl_token4, 1454), (aux_sym_method_decl_token1, 330),
     (aux_sym_prog_access_decls_token1, 332), (aux_sym_initial_step_token1, 334),
     (aux_sym_config_init_token1, 336), (aux_sym__stmt_token1, 340), (aux_sym__stmt_token2, 340),
     (aux_sym__stmt_token3, 340), (aux_sym_if_stmt_token1, 342), (aux_sym_case_stmt_token1, 344),
     (aux_sym_for_stmt_token1, 346), (aux_sym_while_stmt_token1, 348),
     (aux_sym_repeat_stmt_token1, 350), (aux_sym_raise_stmt_token1, 352),
     (aux_sym_try_stmt_token1, 354), (aux_sym_try_stmt_token2, 356),
     (aux_sym_catch_clause_token1, 356), (aux_sym_finally_clause_token1, 356), (sym_ld_rung, 358),
     (sym_fbd_network, 360), (sym_c_style_comment, 3), (sym_pascal_style_comment, 3),
     (sym_pragma, 3)]"

lemma ts_parse_row_562_scan: "row_scan tokens_63_2 0 ts_parse_row_562 = Some (Suc (Suc (Suc (Suc 0))))"
  unfolding ts_parse_row_562_def by simp

text \<open>Lines 118828 to 118940.\<close>

definition ts_parse_row_563 :: parse_row where
  "ts_parse_row_563 =
    [(sym_ERR_assign_func_call, 7530), (sym_ERR_unexpected_this_in_path, 2372),
     (sym_ERR_unexpected_super_in_path, 2372), (sym_ERR_fb_variables_after_method, 1495),
     (sym_ERR_var_access_not_allowed, 3160), (sym_ERR_var_config_not_allowed, 3160),
     (sym_ERR_var_global_not_allowed, 3160), (sym_ERR_method_decl_in_body, 3150),
     (sym_extern_pragma, 7490), (sym_wasm_pragma, 3150), (sym_warn_pragma, 7490),
     (sym_allow_pragma, 3140), (sym_test_pragma, 7490), (sym_once_pragma, 7490),
     (sym_must_call_pragma, 7490), (sym_export_pragma, 7490), (sym_pou_pragma, 7194),
     (sym_direct_variable, 7675), (sym_deref_expression, 2373), (sym_variable, 7599),
     (sym_var_access, 2373), (sym_in_out_decls, 3160), (sym_var_decls, 3160),
     (sym_retain_var_decls, 3160), (sym_temp_var_decls, 3160), (sym_external_var_decls, 3160),
     (sym_global_var_decls, 2947), (sym_loc_partly_var_decl, 3160), (sym__fb_variables, 2347),
     (sym_fb_input_decls, 3160), (sym_fb_output_decls, 3160), (sym_no_retain_var_decls, 3160),
     (sym_fb_body, 8760), (sym_method_decl, 686), (sym_prog_access_decls, 3043), (sym_SFC, 7970),
     (sym_SFC_network, 7612), (sym_initial_step, 7439), (sym_config_init, 3047),
     (sym_variable_access, 7530), (sym_func_call, 2961), (sym_stmt_list, 7970), (sym__stmt, 2024),
     (sym_assign, 3150), (sym_if_stmt, 3150), (sym_case_stmt, 3150), (sym_for_stmt, 3150),
     (sym_while_stmt, 3150), (sym_repeat_stmt, 3150), (sym_raise_stmt, 3150), (sym_try_stmt, 3150),
     (sym_ERR_clause_outside_try, 3150), (sym_begin_path_expression, 2943), (sym_invocation, 2934),
     (sym_any_invocation, 2935), (sym_this_invocation, 2641), (sym_super_invocation, 2641),
     (sym_super_body_invocation, 2935), (sym_path_expression, 2627), (sym_field_expression, 2373),
     (sym_index_expression, 2373), (sym_ladder_diagram, 7970), (sym_fb_diagram, 7970),
     (aux_sym_ERR_fb_variables_after_method_repeat1, 2347), (aux_sym_func_decl_repeat1, 7194),
     (aux_sym_fb_decl_repeat3, 686), (aux_sym_SFC_repeat1, 7612), (aux_sym_stmt_list_repeat1, 2024),
     (aux_sym_ladder_diagram_repeat1, 8009), (aux_sym_fb_diagram_repeat1, 8013),
     (sym_identifier, 298), (aux_sym_ERR_unexpected_this_in_path_token1, 304),
     (aux_sym_ERR_unexpected_super_in_path_token1, 306), (sym_line_comment, 3),
     (anon_sym_LBRACE, 308), (aux_sym_test_pragma_token1, 9), (aux_sym_once_pragma_token1, 11),
     (aux_sym_must_call_pragma_token1, 13), (aux_sym_export_pragma_token1, 15),
     (anon_sym_SEMI, 310), (anon_sym_PERCENT, 312), (aux_sym_input_decls_token1, 314),
     (aux_sym_output_decls_token1, 316), (aux_sym_in_out_decls_token1, 318),
     (aux_sym_var_decls_token1, 320), (aux_sym_temp_var_decls_token1, 322),
     (aux_sym_external_var_decls_token1, 324), (aux_sym_global_var_decls_token1, 326),
     (aux_sym_fb_decl_token4, 1456), (aux_sym_method_decl_token1, 330),
     (aux_sym_prog_access_decls_token1, 332), (aux_sym_initial_step_token1, 334),
     (aux_sym_config_init_token1, 336), (aux_sym__stmt_token1, 340), (aux_sym__stmt_token2, 340),
     (aux_sym__stmt_token3, 340), (aux_sym_if_stmt_token1, 342), (aux_sym_case_stmt_token1, 344),
     (aux_sym_for_stmt_token1, 346), (aux_sym_while_stmt_token1, 348),
     (aux_sym_repeat_stmt_token1, 350), (aux_sym_raise_stmt_token1, 352),
     (aux_sym_try_stmt_token1, 354), (aux_sym_try_stmt_token2, 356),
     (aux_sym_catch_clause_token1, 356), (aux_sym_finally_clause_token1, 356), (sym_ld_rung, 358),
     (sym_fbd_network, 360), (sym_c_style_comment, 3), (sym_pascal_style_comment, 3),
     (sym_pragma, 3)]"

lemma ts_parse_row_563_scan: "row_scan tokens_63_2 0 ts_parse_row_563 = Some (Suc (Suc (Suc (Suc 0))))"
  unfolding ts_parse_row_563_def by simp

text \<open>Lines 118941 to 119053.\<close>

definition ts_parse_row_564 :: parse_row where
  "ts_parse_row_564 =
    [(sym_ERR_assign_func_call, 7530), (sym_ERR_unexpected_this_in_path, 2372),
     (sym_ERR_unexpected_super_in_path, 2372), (sym_ERR_fb_variables_after_method, 1496),
     (sym_ERR_var_access_not_allowed, 3160), (sym_ERR_var_config_not_allowed, 3160),
     (sym_ERR_var_global_not_allowed, 3160), (sym_ERR_method_decl_in_body, 3150),
     (sym_extern_pragma, 7490), (sym_wasm_pragma, 3150), (sym_warn_pragma, 7490),
     (sym_allow_pragma, 3140), (sym_test_pragma, 7490), (sym_once_pragma, 7490),
     (sym_must_call_pragma, 7490), (sym_export_pragma, 7490), (sym_pou_pragma, 7194),
     (sym_direct_variable, 7675), (sym_deref_expression, 2373), (sym_variable, 7599),
     (sym_var_access, 2373), (sym_in_out_decls, 3160), (sym_var_decls, 3160),
     (sym_retain_var_decls, 3160), (sym_temp_var_decls, 3160), (sym_external_var_decls, 3160),
     (sym_global_var_decls, 2947), (sym_loc_partly_var_decl, 3160), (sym__fb_variables, 2343),
     (sym_fb_input_decls, 3160), (sym_fb_output_decls, 3160), (sym_no_retain_var_decls, 3160),
     (sym_fb_body, 8766), (sym_method_decl, 2549), (sym_prog_access_decls, 3043), (sym_SFC, 7970),
     (sym_SFC_network, 7612), (sym_initial_step, 7439), (sym_config_init, 3047),
     (sym_variable_access, 7530), (sym_func_call, 2961), (sym_stmt_list, 7970), (sym__stmt, 2024),
     (sym_assign, 3150), (sym_if_stmt, 3150), (sym_case_stmt, 3150), (sym_for_stmt, 3150),
     (sym_while_stmt, 3150), (sym_repeat_stmt, 3150), (sym_raise_stmt, 3150), (sym_try_stmt, 3150),
     (sym_ERR_clause_outside_try, 3150), (sym_begin_path_expression, 2943), (sym_invocation, 2934),
     (sym_any_invocation, 2935), (sym_this_invocation, 2641), (sym_super_invocation, 2641),
     (sym_super_body_invocation, 2935), (sym_path_expression, 2627), (sym_field_expression, 2373),
     (sym_index_expression, 2373), (sym_ladder_diagram, 7970), (sym_fb_diagram, 7970),
     (aux_sym_ERR_fb_variables_after_method_repeat1, 2343), (aux_sym_func_decl_repeat1, 7194),
     (aux_sym_fb_decl_repeat3, 2549), (aux_sym_SFC_repeat1, 7612),
     (aux_sym_stmt_list_repeat1, 2024), (aux_sym_ladder_diagram_repeat1, 8009),
     (aux_sym_fb_diagram_repeat1, 8013), (sym_identifier, 298),
     (aux_sym_ERR_unexpected_this_in_path_token1, 304),
     (aux_sym_ERR_unexpected_super_in_path_token1, 306), (sym_line_comment, 3),
     (anon_sym_LBRACE, 308), (aux_sym_test_pragma_token1, 9), (aux_sym_once_pragma_token1, 11),
     (aux_sym_must_call_pragma_token1, 13), (aux_sym_export_pragma_token1, 15),
     (anon_sym_SEMI, 310), (anon_sym_PERCENT, 312), (aux_sym_input_decls_token1, 314),
     (aux_sym_output_decls_token1, 316), (aux_sym_in_out_decls_token1, 318),
     (aux_sym_var_decls_token1, 320), (aux_sym_temp_var_decls_token1, 322),
     (aux_sym_external_var_decls_token1, 324), (aux_sym_global_var_decls_token1, 326),
     (aux_sym_fb_decl_token4, 1458), (aux_sym_method_decl_token1, 330),
     (aux_sym_prog_access_decls_token1, 332), (aux_sym_initial_step_token1, 334),
     (aux_sym_config_init_token1, 336), (aux_sym__stmt_token1, 340), (aux_sym__stmt_token2, 340),
     (aux_sym__stmt_token3, 340), (aux_sym_if_stmt_token1, 342), (aux_sym_case_stmt_token1, 344),
     (aux_sym_for_stmt_token1, 346), (aux_sym_while_stmt_token1, 348),
     (aux_sym_repeat_stmt_token1, 350), (aux_sym_raise_stmt_token1, 352),
     (aux_sym_try_stmt_token1, 354), (aux_sym_try_stmt_token2, 356),
     (aux_sym_catch_clause_token1, 356), (aux_sym_finally_clause_token1, 356), (sym_ld_rung, 358),
     (sym_fbd_network, 360), (sym_c_style_comment, 3), (sym_pascal_style_comment, 3),
     (sym_pragma, 3)]"

lemma ts_parse_row_564_scan: "row_scan tokens_63_2 0 ts_parse_row_564 = Some (Suc (Suc (Suc (Suc 0))))"
  unfolding ts_parse_row_564_def by simp

text \<open>Lines 119054 to 119166.\<close>

definition ts_parse_row_565 :: parse_row where
  "ts_parse_row_565 =
    [(sym_ERR_assign_func_call, 7530), (sym_ERR_unexpected_this_in_path, 2372),
     (sym_ERR_unexpected_super_in_path, 2372), (sym_ERR_fb_variables_after_method, 1497),
     (sym_ERR_var_access_not_allowed, 3160), (sym_ERR_var_config_not_allowed, 3160),
     (sym_ERR_var_global_not_allowed, 3160), (sym_ERR_method_decl_in_body, 3150),
     (sym_extern_pragma, 7490), (sym_wasm_pragma, 3150), (sym_warn_pragma, 7490),
     (sym_allow_pragma, 3140), (sym_test_pragma, 7490), (sym_once_pragma, 7490),
     (sym_must_call_pragma, 7490), (sym_export_pragma, 7490), (sym_pou_pragma, 7194),
     (sym_direct_variable, 7675), (sym_deref_expression, 2373), (sym_variable, 7599),
     (sym_var_access, 2373), (sym_in_out_decls, 3160), (sym_var_decls, 3160),
     (sym_retain_var_decls, 3160), (sym_temp_var_decls, 3160), (sym_external_var_decls, 3160),
     (sym_global_var_decls, 2947), (sym_loc_partly_var_decl, 3160), (sym__fb_variables, 2347),
     (sym_fb_input_decls, 3160), (sym_fb_output_decls, 3160), (sym_no_retain_var_decls, 3160),
     (sym_fb_body, 8771), (sym_method_decl, 687), (sym_prog_access_decls, 3043), (sym_SFC, 7970),
     (sym_SFC_network, 7612), (sym_initial_step, 7439), (sym_config_init, 3047),
     (sym_variable_access, 7530), (sym_func_call, 2961), (sym_stmt_list, 7970), (sym__stmt, 2024),
     (sym_assign, 3150), (sym_if_stmt, 3150), (sym_case_stmt, 3150), (sym_for_stmt, 3150),
     (sym_while_stmt, 3150), (sym_repeat_stmt, 3150), (sym_raise_stmt, 3150), (sym_try_stmt, 3150),
     (sym_ERR_clause_outside_try, 3150), (sym_begin_path_expression, 2943), (sym_invocation, 2934),
     (sym_any_invocation, 2935), (sym_this_invocation, 2641), (sym_super_invocation, 2641),
     (sym_super_body_invocation, 2935), (sym_path_expression, 2627), (sym_field_expression, 2373),
     (sym_index_expression, 2373), (sym_ladder_diagram, 7970), (sym_fb_diagram, 7970),
     (aux_sym_ERR_fb_variables_after_method_repeat1, 2347), (aux_sym_func_decl_repeat1, 7194),
     (aux_sym_fb_decl_repeat3, 687), (aux_sym_SFC_repeat1, 7612), (aux_sym_stmt_list_repeat1, 2024),
     (aux_sym_ladder_diagram_repeat1, 8009), (aux_sym_fb_diagram_repeat1, 8013),
     (sym_identifier, 298), (aux_sym_ERR_unexpected_this_in_path_token1, 304),
     (aux_sym_ERR_unexpected_super_in_path_token1, 306), (sym_line_comment, 3),
     (anon_sym_LBRACE, 308), (aux_sym_test_pragma_token1, 9), (aux_sym_once_pragma_token1, 11),
     (aux_sym_must_call_pragma_token1, 13), (aux_sym_export_pragma_token1, 15),
     (anon_sym_SEMI, 310), (anon_sym_PERCENT, 312), (aux_sym_input_decls_token1, 314),
     (aux_sym_output_decls_token1, 316), (aux_sym_in_out_decls_token1, 318),
     (aux_sym_var_decls_token1, 320), (aux_sym_temp_var_decls_token1, 322),
     (aux_sym_external_var_decls_token1, 324), (aux_sym_global_var_decls_token1, 326),
     (aux_sym_fb_decl_token4, 1460), (aux_sym_method_decl_token1, 330),
     (aux_sym_prog_access_decls_token1, 332), (aux_sym_initial_step_token1, 334),
     (aux_sym_config_init_token1, 336), (aux_sym__stmt_token1, 340), (aux_sym__stmt_token2, 340),
     (aux_sym__stmt_token3, 340), (aux_sym_if_stmt_token1, 342), (aux_sym_case_stmt_token1, 344),
     (aux_sym_for_stmt_token1, 346), (aux_sym_while_stmt_token1, 348),
     (aux_sym_repeat_stmt_token1, 350), (aux_sym_raise_stmt_token1, 352),
     (aux_sym_try_stmt_token1, 354), (aux_sym_try_stmt_token2, 356),
     (aux_sym_catch_clause_token1, 356), (aux_sym_finally_clause_token1, 356), (sym_ld_rung, 358),
     (sym_fbd_network, 360), (sym_c_style_comment, 3), (sym_pascal_style_comment, 3),
     (sym_pragma, 3)]"

lemma ts_parse_row_565_scan: "row_scan tokens_63_2 0 ts_parse_row_565 = Some (Suc (Suc (Suc (Suc 0))))"
  unfolding ts_parse_row_565_def by simp

text \<open>Lines 119167 to 119279.\<close>

definition ts_parse_row_566 :: parse_row where
  "ts_parse_row_566 =
    [(sym_ERR_assign_func_call, 7530), (sym_ERR_unexpected_this_in_path, 2372),
     (sym_ERR_unexpected_super_in_path, 2372), (sym_ERR_fb_variables_after_method, 1898),
     (sym_ERR_var_access_not_allowed, 3160), (sym_ERR_var_config_not_allowed, 3160),
     (sym_ERR_var_global_not_allowed, 3160), (sym_ERR_method_decl_in_body, 3150),
     (sym_extern_pragma, 7490), (sym_wasm_pragma, 3150), (sym_warn_pragma, 7490),
     (sym_allow_pragma, 3140), (sym_test_pragma, 7490), (sym_once_pragma, 7490),
     (sym_must_call_pragma, 7490), (sym_export_pragma, 7490), (sym_pou_pragma, 7194),
     (sym_direct_variable, 7675), (sym_deref_expression, 2373), (sym_variable, 7599),
     (sym_var_access, 2373), (sym_in_out_decls, 3160), (sym_var_decls, 3160),
     (sym_retain_var_decls, 3160), (sym_temp_var_decls, 3160), (sym_external_var_decls, 3160),
     (sym_global_var_decls, 2947), (sym_loc_partly_var_decl, 3160), (sym__fb_variables, 2347),
     (sym_fb_input_decls, 3160), (sym_fb_output_decls, 3160), (sym_no_retain_var_decls, 3160),
     (sym_fb_body, 10067), (sym_method_decl, 325), (sym_prog_access_decls, 3043), (sym_SFC, 7970),
     (sym_SFC_network, 7612), (sym_initial_step, 7439), (sym_config_init, 3047),
     (sym_variable_access, 7530), (sym_func_call, 2961), (sym_stmt_list, 7970), (sym__stmt, 2024),
     (sym_assign, 3150), (sym_if_stmt, 3150), (sym_case_stmt, 3150), (sym_for_stmt, 3150),
     (sym_while_stmt, 3150), (sym_repeat_stmt, 3150), (sym_raise_stmt, 3150), (sym_try_stmt, 3150),
     (sym_ERR_clause_outside_try, 3150), (sym_begin_path_expression, 2943), (sym_invocation, 2934),
     (sym_any_invocation, 2935), (sym_this_invocation, 2641), (sym_super_invocation, 2641),
     (sym_super_body_invocation, 2935), (sym_path_expression, 2627), (sym_field_expression, 2373),
     (sym_index_expression, 2373), (sym_ladder_diagram, 7970), (sym_fb_diagram, 7970),
     (aux_sym_ERR_fb_variables_after_method_repeat1, 2347), (aux_sym_func_decl_repeat1, 7194),
     (aux_sym_fb_decl_repeat3, 325), (aux_sym_SFC_repeat1, 7612), (aux_sym_stmt_list_repeat1, 2024),
     (aux_sym_ladder_diagram_repeat1, 8009), (aux_sym_fb_diagram_repeat1, 8013),
     (sym_identifier, 298), (aux_sym_ERR_unexpected_this_in_path_token1, 304),
     (aux_sym_ERR_unexpected_super_in_path_token1, 306), (sym_line_comment, 3),
     (anon_sym_LBRACE, 308), (aux_sym_test_pragma_token1, 9), (aux_sym_once_pragma_token1, 11),
     (aux_sym_must_call_pragma_token1, 13), (aux_sym_export_pragma_token1, 15),
     (anon_sym_SEMI, 310), (anon_sym_PERCENT, 312), (aux_sym_input_decls_token1, 314),
     (aux_sym_output_decls_token1, 316), (aux_sym_in_out_decls_token1, 318),
     (aux_sym_var_decls_token1, 320), (aux_sym_temp_var_decls_token1, 322),
     (aux_sym_external_var_decls_token1, 324), (aux_sym_global_var_decls_token1, 326),
     (aux_sym_fb_decl_token4, 1462), (aux_sym_method_decl_token1, 330),
     (aux_sym_prog_access_decls_token1, 332), (aux_sym_initial_step_token1, 334),
     (aux_sym_config_init_token1, 336), (aux_sym__stmt_token1, 340), (aux_sym__stmt_token2, 340),
     (aux_sym__stmt_token3, 340), (aux_sym_if_stmt_token1, 342), (aux_sym_case_stmt_token1, 344),
     (aux_sym_for_stmt_token1, 346), (aux_sym_while_stmt_token1, 348),
     (aux_sym_repeat_stmt_token1, 350), (aux_sym_raise_stmt_token1, 352),
     (aux_sym_try_stmt_token1, 354), (aux_sym_try_stmt_token2, 356),
     (aux_sym_catch_clause_token1, 356), (aux_sym_finally_clause_token1, 356), (sym_ld_rung, 358),
     (sym_fbd_network, 360), (sym_c_style_comment, 3), (sym_pascal_style_comment, 3),
     (sym_pragma, 3)]"

lemma ts_parse_row_566_scan: "row_scan tokens_63_2 0 ts_parse_row_566 = Some (Suc (Suc (Suc (Suc 0))))"
  unfolding ts_parse_row_566_def by simp

text \<open>Lines 119280 to 119392.\<close>

definition ts_parse_row_567 :: parse_row where
  "ts_parse_row_567 =
    [(sym_ERR_assign_func_call, 7530), (sym_ERR_unexpected_this_in_path, 2372),
     (sym_ERR_unexpected_super_in_path, 2372), (sym_ERR_fb_variables_after_method, 1500),
     (sym_ERR_var_access_not_allowed, 3160), (sym_ERR_var_config_not_allowed, 3160),
     (sym_ERR_var_global_not_allowed, 3160), (sym_ERR_method_decl_in_body, 3150),
     (sym_extern_pragma, 7490), (sym_wasm_pragma, 3150), (sym_warn_pragma, 7490),
     (sym_allow_pragma, 3140), (sym_test_pragma, 7490), (sym_once_pragma, 7490),
     (sym_must_call_pragma, 7490), (sym_export_pragma, 7490), (sym_pou_pragma, 7194),
     (sym_direct_variable, 7675), (sym_deref_expression, 2373), (sym_variable, 7599),
     (sym_var_access, 2373), (sym_in_out_decls, 3160), (sym_var_decls, 3160),
     (sym_retain_var_decls, 3160), (sym_temp_var_decls, 3160), (sym_external_var_decls, 3160),
     (sym_global_var_decls, 2947), (sym_loc_partly_var_decl, 3160), (sym__fb_variables, 2343),
     (sym_fb_input_decls, 3160), (sym_fb_output_decls, 3160), (sym_no_retain_var_decls, 3160),
     (sym_fb_body, 8782), (sym_method_decl, 2549), (sym_prog_access_decls, 3043), (sym_SFC, 7970),
     (sym_SFC_network, 7612), (sym_initial_step, 7439), (sym_config_init, 3047),
     (sym_variable_access, 7530), (sym_func_call, 2961), (sym_stmt_list, 7970), (sym__stmt, 2024),
     (sym_assign, 3150), (sym_if_stmt, 3150), (sym_case_stmt, 3150), (sym_for_stmt, 3150),
     (sym_while_stmt, 3150), (sym_repeat_stmt, 3150), (sym_raise_stmt, 3150), (sym_try_stmt, 3150),
     (sym_ERR_clause_outside_try, 3150), (sym_begin_path_expression, 2943), (sym_invocation, 2934),
     (sym_any_invocation, 2935), (sym_this_invocation, 2641), (sym_super_invocation, 2641),
     (sym_super_body_invocation, 2935), (sym_path_expression, 2627), (sym_field_expression, 2373),
     (sym_index_expression, 2373), (sym_ladder_diagram, 7970), (sym_fb_diagram, 7970),
     (aux_sym_ERR_fb_variables_after_method_repeat1, 2343), (aux_sym_func_decl_repeat1, 7194),
     (aux_sym_fb_decl_repeat3, 2549), (aux_sym_SFC_repeat1, 7612),
     (aux_sym_stmt_list_repeat1, 2024), (aux_sym_ladder_diagram_repeat1, 8009),
     (aux_sym_fb_diagram_repeat1, 8013), (sym_identifier, 298),
     (aux_sym_ERR_unexpected_this_in_path_token1, 304),
     (aux_sym_ERR_unexpected_super_in_path_token1, 306), (sym_line_comment, 3),
     (anon_sym_LBRACE, 308), (aux_sym_test_pragma_token1, 9), (aux_sym_once_pragma_token1, 11),
     (aux_sym_must_call_pragma_token1, 13), (aux_sym_export_pragma_token1, 15),
     (anon_sym_SEMI, 310), (anon_sym_PERCENT, 312), (aux_sym_input_decls_token1, 314),
     (aux_sym_output_decls_token1, 316), (aux_sym_in_out_decls_token1, 318),
     (aux_sym_var_decls_token1, 320), (aux_sym_temp_var_decls_token1, 322),
     (aux_sym_external_var_decls_token1, 324), (aux_sym_global_var_decls_token1, 326),
     (aux_sym_fb_decl_token4, 1464), (aux_sym_method_decl_token1, 330),
     (aux_sym_prog_access_decls_token1, 332), (aux_sym_initial_step_token1, 334),
     (aux_sym_config_init_token1, 336), (aux_sym__stmt_token1, 340), (aux_sym__stmt_token2, 340),
     (aux_sym__stmt_token3, 340), (aux_sym_if_stmt_token1, 342), (aux_sym_case_stmt_token1, 344),
     (aux_sym_for_stmt_token1, 346), (aux_sym_while_stmt_token1, 348),
     (aux_sym_repeat_stmt_token1, 350), (aux_sym_raise_stmt_token1, 352),
     (aux_sym_try_stmt_token1, 354), (aux_sym_try_stmt_token2, 356),
     (aux_sym_catch_clause_token1, 356), (aux_sym_finally_clause_token1, 356), (sym_ld_rung, 358),
     (sym_fbd_network, 360), (sym_c_style_comment, 3), (sym_pascal_style_comment, 3),
     (sym_pragma, 3)]"

lemma ts_parse_row_567_scan: "row_scan tokens_63_2 0 ts_parse_row_567 = Some (Suc (Suc (Suc (Suc 0))))"
  unfolding ts_parse_row_567_def by simp

text \<open>Lines 119393 to 119505.\<close>

definition ts_parse_row_568 :: parse_row where
  "ts_parse_row_568 =
    [(sym_ERR_assign_func_call, 7530), (sym_ERR_unexpected_this_in_path, 2372),
     (sym_ERR_unexpected_super_in_path, 2372), (sym_ERR_fb_variables_after_method, 1679),
     (sym_ERR_var_access_not_allowed, 3160), (sym_ERR_var_config_not_allowed, 3160),
     (sym_ERR_var_global_not_allowed, 3160), (sym_ERR_method_decl_in_body, 3150),
     (sym_extern_pragma, 7490), (sym_wasm_pragma, 3150), (sym_warn_pragma, 7490),
     (sym_allow_pragma, 3140), (sym_test_pragma, 7490), (sym_once_pragma, 7490),
     (sym_must_call_pragma, 7490), (sym_export_pragma, 7490), (sym_pou_pragma, 7194),
     (sym_direct_variable, 7675), (sym_deref_expression, 2373), (sym_variable, 7599),
     (sym_var_access, 2373), (sym_in_out_decls, 3160), (sym_var_decls, 3160),
     (sym_retain_var_decls, 3160), (sym_temp_var_decls, 3160), (sym_external_var_decls, 3160),
     (sym_global_var_decls, 2947), (sym_loc_partly_var_decl, 3160), (sym__fb_variables, 2343),
     (sym_fb_input_decls, 3160), (sym_fb_output_decls, 3160), (sym_no_retain_var_decls, 3160),
     (sym_fb_body, 9025), (sym_method_decl, 2549), (sym_prog_access_decls, 3043), (sym_SFC, 7970),
     (sym_SFC_network, 7612), (sym_initial_step, 7439), (sym_config_init, 3047),
     (sym_variable_access, 7530), (sym_func_call, 2961), (sym_stmt_list, 7970), (sym__stmt, 2024),
     (sym_assign, 3150), (sym_if_stmt, 3150), (sym_case_stmt, 3150), (sym_for_stmt, 3150),
     (sym_while_stmt, 3150), (sym_repeat_stmt, 3150), (sym_raise_stmt, 3150), (sym_try_stmt, 3150),
     (sym_ERR_clause_outside_try, 3150), (sym_begin_path_expression, 2943), (sym_invocation, 2934),
     (sym_any_invocation, 2935), (sym_this_invocation, 2641), (sym_super_invocation, 2641),
     (sym_super_body_invocation, 2935), (sym_path_expression, 2627), (sym_field_expression, 2373),
     (sym_index_expression, 2373), (sym_ladder_diagram, 7970), (sym_fb_diagram, 7970),
     (aux_sym_ERR_fb_variables_after_method_repeat1, 2343), (aux_sym_func_decl_repeat1, 7194),
     (aux_sym_fb_decl_repeat3, 2549), (aux_sym_SFC_repeat1, 7612),
     (aux_sym_stmt_list_repeat1, 2024), (aux_sym_ladder_diagram_repeat1, 8009),
     (aux_sym_fb_diagram_repeat1, 8013), (sym_identifier, 298),
     (aux_sym_ERR_unexpected_this_in_path_token1, 304),
     (aux_sym_ERR_unexpected_super_in_path_token1, 306), (sym_line_comment, 3),
     (anon_sym_LBRACE, 308), (aux_sym_test_pragma_token1, 9), (aux_sym_once_pragma_token1, 11),
     (aux_sym_must_call_pragma_token1, 13), (aux_sym_export_pragma_token1, 15),
     (anon_sym_SEMI, 310), (anon_sym_PERCENT, 312), (aux_sym_input_decls_token1, 314),
     (aux_sym_output_decls_token1, 316), (aux_sym_in_out_decls_token1, 318),
     (aux_sym_var_decls_token1, 320), (aux_sym_temp_var_decls_token1, 322),
     (aux_sym_external_var_decls_token1, 324), (aux_sym_global_var_decls_token1, 326),
     (aux_sym_fb_decl_token4, 1466), (aux_sym_method_decl_token1, 330),
     (aux_sym_prog_access_decls_token1, 332), (aux_sym_initial_step_token1, 334),
     (aux_sym_config_init_token1, 336), (aux_sym__stmt_token1, 340), (aux_sym__stmt_token2, 340),
     (aux_sym__stmt_token3, 340), (aux_sym_if_stmt_token1, 342), (aux_sym_case_stmt_token1, 344),
     (aux_sym_for_stmt_token1, 346), (aux_sym_while_stmt_token1, 348),
     (aux_sym_repeat_stmt_token1, 350), (aux_sym_raise_stmt_token1, 352),
     (aux_sym_try_stmt_token1, 354), (aux_sym_try_stmt_token2, 356),
     (aux_sym_catch_clause_token1, 356), (aux_sym_finally_clause_token1, 356), (sym_ld_rung, 358),
     (sym_fbd_network, 360), (sym_c_style_comment, 3), (sym_pascal_style_comment, 3),
     (sym_pragma, 3)]"

lemma ts_parse_row_568_scan: "row_scan tokens_63_2 0 ts_parse_row_568 = Some (Suc (Suc (Suc (Suc 0))))"
  unfolding ts_parse_row_568_def by simp

text \<open>Lines 119506 to 119618.\<close>

definition ts_parse_row_569 :: parse_row where
  "ts_parse_row_569 =
    [(sym_ERR_assign_func_call, 7530), (sym_ERR_unexpected_this_in_path, 2372),
     (sym_ERR_unexpected_super_in_path, 2372), (sym_ERR_fb_variables_after_method, 1503),
     (sym_ERR_var_access_not_allowed, 3160), (sym_ERR_var_config_not_allowed, 3160),
     (sym_ERR_var_global_not_allowed, 3160), (sym_ERR_method_decl_in_body, 3150),
     (sym_extern_pragma, 7490), (sym_wasm_pragma, 3150), (sym_warn_pragma, 7490),
     (sym_allow_pragma, 3140), (sym_test_pragma, 7490), (sym_once_pragma, 7490),
     (sym_must_call_pragma, 7490), (sym_export_pragma, 7490), (sym_pou_pragma, 7194),
     (sym_direct_variable, 7675), (sym_deref_expression, 2373), (sym_variable, 7599),
     (sym_var_access, 2373), (sym_in_out_decls, 3160), (sym_var_decls, 3160),
     (sym_retain_var_decls, 3160), (sym_temp_var_decls, 3160), (sym_external_var_decls, 3160),
     (sym_global_var_decls, 2947), (sym_loc_partly_var_decl, 3160), (sym__fb_variables, 2343),
     (sym_fb_input_decls, 3160), (sym_fb_output_decls, 3160), (sym_no_retain_var_decls, 3160),
     (sym_fb_body, 8806), (sym_method_decl, 2549), (sym_prog_access_decls, 3043), (sym_SFC, 7970),
     (sym_SFC_network, 7612), (sym_initial_step, 7439), (sym_config_init, 3047),
     (sym_variable_access, 7530), (sym_func_call, 2961), (sym_stmt_list, 7970), (sym__stmt, 2024),
     (sym_assign, 3150), (sym_if_stmt, 3150), (sym_case_stmt, 3150), (sym_for_stmt, 3150),
     (sym_while_stmt, 3150), (sym_repeat_stmt, 3150), (sym_raise_stmt, 3150), (sym_try_stmt, 3150),
     (sym_ERR_clause_outside_try, 3150), (sym_begin_path_expression, 2943), (sym_invocation, 2934),
     (sym_any_invocation, 2935), (sym_this_invocation, 2641), (sym_super_invocation, 2641),
     (sym_super_body_invocation, 2935), (sym_path_expression, 2627), (sym_field_expression, 2373),
     (sym_index_expression, 2373), (sym_ladder_diagram, 7970), (sym_fb_diagram, 7970),
     (aux_sym_ERR_fb_variables_after_method_repeat1, 2343), (aux_sym_func_decl_repeat1, 7194),
     (aux_sym_fb_decl_repeat3, 2549), (aux_sym_SFC_repeat1, 7612),
     (aux_sym_stmt_list_repeat1, 2024), (aux_sym_ladder_diagram_repeat1, 8009),
     (aux_sym_fb_diagram_repeat1, 8013), (sym_identifier, 298),
     (aux_sym_ERR_unexpected_this_in_path_token1, 304),
     (aux_sym_ERR_unexpected_super_in_path_token1, 306), (sym_line_comment, 3),
     (anon_sym_LBRACE, 308), (aux_sym_test_pragma_token1, 9), (aux_sym_once_pragma_token1, 11),
     (aux_sym_must_call_pragma_token1, 13), (aux_sym_export_pragma_token1, 15),
     (anon_sym_SEMI, 310), (anon_sym_PERCENT, 312), (aux_sym_input_decls_token1, 314),
     (aux_sym_output_decls_token1, 316), (aux_sym_in_out_decls_token1, 318),
     (aux_sym_var_decls_token1, 320), (aux_sym_temp_var_decls_token1, 322),
     (aux_sym_external_var_decls_token1, 324), (aux_sym_global_var_decls_token1, 326),
     (aux_sym_fb_decl_token4, 1468), (aux_sym_method_decl_token1, 330),
     (aux_sym_prog_access_decls_token1, 332), (aux_sym_initial_step_token1, 334),
     (aux_sym_config_init_token1, 336), (aux_sym__stmt_token1, 340), (aux_sym__stmt_token2, 340),
     (aux_sym__stmt_token3, 340), (aux_sym_if_stmt_token1, 342), (aux_sym_case_stmt_token1, 344),
     (aux_sym_for_stmt_token1, 346), (aux_sym_while_stmt_token1, 348),
     (aux_sym_repeat_stmt_token1, 350), (aux_sym_raise_stmt_token1, 352),
     (aux_sym_try_stmt_token1, 354), (aux_sym_try_stmt_token2, 356),
     (aux_sym_catch_clause_token1, 356), (aux_sym_finally_clause_token1, 356), (sym_ld_rung, 358),
     (sym_fbd_network, 360), (sym_c_style_comment, 3), (sym_pascal_style_comment, 3),
     (sym_pragma, 3)]"

lemma ts_parse_row_569_scan: "row_scan tokens_63_2 0 ts_parse_row_569 = Some (Suc (Suc (Suc (Suc 0))))"
  unfolding ts_parse_row_569_def by simp

text \<open>Lines 119619 to 119731.\<close>

definition ts_parse_row_570 :: parse_row where
  "ts_parse_row_570 =
    [(sym_ERR_assign_func_call, 7530), (sym_ERR_unexpected_this_in_path, 2372),
     (sym_ERR_unexpected_super_in_path, 2372), (sym_ERR_fb_variables_after_method, 1504),
     (sym_ERR_var_access_not_allowed, 3160), (sym_ERR_var_config_not_allowed, 3160),
     (sym_ERR_var_global_not_allowed, 3160), (sym_ERR_method_decl_in_body, 3150),
     (sym_extern_pragma, 7490), (sym_wasm_pragma, 3150), (sym_warn_pragma, 7490),
     (sym_allow_pragma, 3140), (sym_test_pragma, 7490), (sym_once_pragma, 7490),
     (sym_must_call_pragma, 7490), (sym_export_pragma, 7490), (sym_pou_pragma, 7194),
     (sym_direct_variable, 7675), (sym_deref_expression, 2373), (sym_variable, 7599),
     (sym_var_access, 2373), (sym_in_out_decls, 3160), (sym_var_decls, 3160),
     (sym_retain_var_decls, 3160), (sym_temp_var_decls, 3160), (sym_external_var_decls, 3160),
     (sym_global_var_decls, 2947), (sym_loc_partly_var_decl, 3160), (sym__fb_variables, 2347),
     (sym_fb_input_decls, 3160), (sym_fb_output_decls, 3160), (sym_no_retain_var_decls, 3160),
     (sym_fb_body, 8815), (sym_method_decl, 694), (sym_prog_access_decls, 3043), (sym_SFC, 7970),
     (sym_SFC_network, 7612), (sym_initial_step, 7439), (sym_config_init, 3047),
     (sym_variable_access, 7530), (sym_func_call, 2961), (sym_stmt_list, 7970), (sym__stmt, 2024),
     (sym_assign, 3150), (sym_if_stmt, 3150), (sym_case_stmt, 3150), (sym_for_stmt, 3150),
     (sym_while_stmt, 3150), (sym_repeat_stmt, 3150), (sym_raise_stmt, 3150), (sym_try_stmt, 3150),
     (sym_ERR_clause_outside_try, 3150), (sym_begin_path_expression, 2943), (sym_invocation, 2934),
     (sym_any_invocation, 2935), (sym_this_invocation, 2641), (sym_super_invocation, 2641),
     (sym_super_body_invocation, 2935), (sym_path_expression, 2627), (sym_field_expression, 2373),
     (sym_index_expression, 2373), (sym_ladder_diagram, 7970), (sym_fb_diagram, 7970),
     (aux_sym_ERR_fb_variables_after_method_repeat1, 2347), (aux_sym_func_decl_repeat1, 7194),
     (aux_sym_fb_decl_repeat3, 694), (aux_sym_SFC_repeat1, 7612), (aux_sym_stmt_list_repeat1, 2024),
     (aux_sym_ladder_diagram_repeat1, 8009), (aux_sym_fb_diagram_repeat1, 8013),
     (sym_identifier, 298), (aux_sym_ERR_unexpected_this_in_path_token1, 304),
     (aux_sym_ERR_unexpected_super_in_path_token1, 306), (sym_line_comment, 3),
     (anon_sym_LBRACE, 308), (aux_sym_test_pragma_token1, 9), (aux_sym_once_pragma_token1, 11),
     (aux_sym_must_call_pragma_token1, 13), (aux_sym_export_pragma_token1, 15),
     (anon_sym_SEMI, 310), (anon_sym_PERCENT, 312), (aux_sym_input_decls_token1, 314),
     (aux_sym_output_decls_token1, 316), (aux_sym_in_out_decls_token1, 318),
     (aux_sym_var_decls_token1, 320), (aux_sym_temp_var_decls_token1, 322),
     (aux_sym_external_var_decls_token1, 324), (aux_sym_global_var_decls_token1, 326),
     (aux_sym_fb_decl_token4, 1470), (aux_sym_method_decl_token1, 330),
     (aux_sym_prog_access_decls_token1, 332), (aux_sym_initial_step_token1, 334),
     (aux_sym_config_init_token1, 336), (aux_sym__stmt_token1, 340), (aux_sym__stmt_token2, 340),
     (aux_sym__stmt_token3, 340), (aux_sym_if_stmt_token1, 342), (aux_sym_case_stmt_token1, 344),
     (aux_sym_for_stmt_token1, 346), (aux_sym_while_stmt_token1, 348),
     (aux_sym_repeat_stmt_token1, 350), (aux_sym_raise_stmt_token1, 352),
     (aux_sym_try_stmt_token1, 354), (aux_sym_try_stmt_token2, 356),
     (aux_sym_catch_clause_token1, 356), (aux_sym_finally_clause_token1, 356), (sym_ld_rung, 358),
     (sym_fbd_network, 360), (sym_c_style_comment, 3), (sym_pascal_style_comment, 3),
     (sym_pragma, 3)]"

lemma ts_parse_row_570_scan: "row_scan tokens_63_2 0 ts_parse_row_570 = Some (Suc (Suc (Suc (Suc 0))))"
  unfolding ts_parse_row_570_def by simp

text \<open>Lines 119732 to 119844.\<close>

definition ts_parse_row_571 :: parse_row where
  "ts_parse_row_571 =
    [(sym_ERR_assign_func_call, 7530), (sym_ERR_unexpected_this_in_path, 2372),
     (sym_ERR_unexpected_super_in_path, 2372), (sym_ERR_fb_variables_after_method, 1505),
     (sym_ERR_var_access_not_allowed, 3160), (sym_ERR_var_config_not_allowed, 3160),
     (sym_ERR_var_global_not_allowed, 3160), (sym_ERR_method_decl_in_body, 3150),
     (sym_extern_pragma, 7490), (sym_wasm_pragma, 3150), (sym_warn_pragma, 7490),
     (sym_allow_pragma, 3140), (sym_test_pragma, 7490), (sym_once_pragma, 7490),
     (sym_must_call_pragma, 7490), (sym_export_pragma, 7490), (sym_pou_pragma, 7194),
     (sym_direct_variable, 7675), (sym_deref_expression, 2373), (sym_variable, 7599),
     (sym_var_access, 2373), (sym_in_out_decls, 3160), (sym_var_decls, 3160),
     (sym_retain_var_decls, 3160), (sym_temp_var_decls, 3160), (sym_external_var_decls, 3160),
     (sym_global_var_decls, 2947), (sym_loc_partly_var_decl, 3160), (sym__fb_variables, 2343),
     (sym_fb_input_decls, 3160), (sym_fb_output_decls, 3160), (sym_no_retain_var_decls, 3160),
     (sym_fb_body, 8819), (sym_method_decl, 2549), (sym_prog_access_decls, 3043), (sym_SFC, 7970),
     (sym_SFC_network, 7612), (sym_initial_step, 7439), (sym_config_init, 3047),
     (sym_variable_access, 7530), (sym_func_call, 2961), (sym_stmt_list, 7970), (sym__stmt, 2024),
     (sym_assign, 3150), (sym_if_stmt, 3150), (sym_case_stmt, 3150), (sym_for_stmt, 3150),
     (sym_while_stmt, 3150), (sym_repeat_stmt, 3150), (sym_raise_stmt, 3150), (sym_try_stmt, 3150),
     (sym_ERR_clause_outside_try, 3150), (sym_begin_path_expression, 2943), (sym_invocation, 2934),
     (sym_any_invocation, 2935), (sym_this_invocation, 2641), (sym_super_invocation, 2641),
     (sym_super_body_invocation, 2935), (sym_path_expression, 2627), (sym_field_expression, 2373),
     (sym_index_expression, 2373), (sym_ladder_diagram, 7970), (sym_fb_diagram, 7970),
     (aux_sym_ERR_fb_variables_after_method_repeat1, 2343), (aux_sym_func_decl_repeat1, 7194),
     (aux_sym_fb_decl_repeat3, 2549), (aux_sym_SFC_repeat1, 7612),
     (aux_sym_stmt_list_repeat1, 2024), (aux_sym_ladder_diagram_repeat1, 8009),
     (aux_sym_fb_diagram_repeat1, 8013), (sym_identifier, 298),
     (aux_sym_ERR_unexpected_this_in_path_token1, 304),
     (aux_sym_ERR_unexpected_super_in_path_token1, 306), (sym_line_comment, 3),
     (anon_sym_LBRACE, 308), (aux_sym_test_pragma_token1, 9), (aux_sym_once_pragma_token1, 11),
     (aux_sym_must_call_pragma_token1, 13), (aux_sym_export_pragma_token1, 15),
     (anon_sym_SEMI, 310), (anon_sym_PERCENT, 312), (aux_sym_input_decls_token1, 314),
     (aux_sym_output_decls_token1, 316), (aux_sym_in_out_decls_token1, 318),
     (aux_sym_var_decls_token1, 320), (aux_sym_temp_var_decls_token1, 322),
     (aux_sym_external_var_decls_token1, 324), (aux_sym_global_var_decls_token1, 326),
     (aux_sym_fb_decl_token4, 1472), (aux_sym_method_decl_token1, 330),
     (aux_sym_prog_access_decls_token1, 332), (aux_sym_initial_step_token1, 334),
     (aux_sym_config_init_token1, 336), (aux_sym__stmt_token1, 340), (aux_sym__stmt_token2, 340),
     (aux_sym__stmt_token3, 340), (aux_sym_if_stmt_token1, 342), (aux_sym_case_stmt_token1, 344),
     (aux_sym_for_stmt_token1, 346), (aux_sym_while_stmt_token1, 348),
     (aux_sym_repeat_stmt_token1, 350), (aux_sym_raise_stmt_token1, 352),
     (aux_sym_try_stmt_token1, 354), (aux_sym_try_stmt_token2, 356),
     (aux_sym_catch_clause_token1, 356), (aux_sym_finally_clause_token1, 356), (sym_ld_rung, 358),
     (sym_fbd_network, 360), (sym_c_style_comment, 3), (sym_pascal_style_comment, 3),
     (sym_pragma, 3)]"

lemma ts_parse_row_571_scan: "row_scan tokens_63_2 0 ts_parse_row_571 = Some (Suc (Suc (Suc (Suc 0))))"
  unfolding ts_parse_row_571_def by simp

text \<open>Lines 119845 to 119957.\<close>

definition ts_parse_row_572 :: parse_row where
  "ts_parse_row_572 =
    [(sym_ERR_assign_func_call, 7530), (sym_ERR_unexpected_this_in_path, 2372),
     (sym_ERR_unexpected_super_in_path, 2372), (sym_ERR_fb_variables_after_method, 1506),
     (sym_ERR_var_access_not_allowed, 3160), (sym_ERR_var_config_not_allowed, 3160),
     (sym_ERR_var_global_not_allowed, 3160), (sym_ERR_method_decl_in_body, 3150),
     (sym_extern_pragma, 7490), (sym_wasm_pragma, 3150), (sym_warn_pragma, 7490),
     (sym_allow_pragma, 3140), (sym_test_pragma, 7490), (sym_once_pragma, 7490),
     (sym_must_call_pragma, 7490), (sym_export_pragma, 7490), (sym_pou_pragma, 7194),
     (sym_direct_variable, 7675), (sym_deref_expression, 2373), (sym_variable, 7599),
     (sym_var_access, 2373), (sym_in_out_decls, 3160), (sym_var_decls, 3160),
     (sym_retain_var_decls, 3160), (sym_temp_var_decls, 3160), (sym_external_var_decls, 3160),
     (sym_global_var_decls, 2947), (sym_loc_partly_var_decl, 3160), (sym__fb_variables, 2347),
     (sym_fb_input_decls, 3160), (sym_fb_output_decls, 3160), (sym_no_retain_var_decls, 3160),
     (sym_fb_body, 8828), (sym_method_decl, 696), (sym_prog_access_decls, 3043), (sym_SFC, 7970),
     (sym_SFC_network, 7612), (sym_initial_step, 7439), (sym_config_init, 3047),
     (sym_variable_access, 7530), (sym_func_call, 2961), (sym_stmt_list, 7970), (sym__stmt, 2024),
     (sym_assign, 3150), (sym_if_stmt, 3150), (sym_case_stmt, 3150), (sym_for_stmt, 3150),
     (sym_while_stmt, 3150), (sym_repeat_stmt, 3150), (sym_raise_stmt, 3150), (sym_try_stmt, 3150),
     (sym_ERR_clause_outside_try, 3150), (sym_begin_path_expression, 2943), (sym_invocation, 2934),
     (sym_any_invocation, 2935), (sym_this_invocation, 2641), (sym_super_invocation, 2641),
     (sym_super_body_invocation, 2935), (sym_path_expression, 2627), (sym_field_expression, 2373),
     (sym_index_expression, 2373), (sym_ladder_diagram, 7970), (sym_fb_diagram, 7970),
     (aux_sym_ERR_fb_variables_after_method_repeat1, 2347), (aux_sym_func_decl_repeat1, 7194),
     (aux_sym_fb_decl_repeat3, 696), (aux_sym_SFC_repeat1, 7612), (aux_sym_stmt_list_repeat1, 2024),
     (aux_sym_ladder_diagram_repeat1, 8009), (aux_sym_fb_diagram_repeat1, 8013),
     (sym_identifier, 298), (aux_sym_ERR_unexpected_this_in_path_token1, 304),
     (aux_sym_ERR_unexpected_super_in_path_token1, 306), (sym_line_comment, 3),
     (anon_sym_LBRACE, 308), (aux_sym_test_pragma_token1, 9), (aux_sym_once_pragma_token1, 11),
     (aux_sym_must_call_pragma_token1, 13), (aux_sym_export_pragma_token1, 15),
     (anon_sym_SEMI, 310), (anon_sym_PERCENT, 312), (aux_sym_input_decls_token1, 314),
     (aux_sym_output_decls_token1, 316), (aux_sym_in_out_decls_token1, 318),
     (aux_sym_var_decls_token1, 320), (aux_sym_temp_var_decls_token1, 322),
     (aux_sym_external_var_decls_token1, 324), (aux_sym_global_var_decls_token1, 326),
     (aux_sym_fb_decl_token4, 1474), (aux_sym_method_decl_token1, 330),
     (aux_sym_prog_access_decls_token1, 332), (aux_sym_initial_step_token1, 334),
     (aux_sym_config_init_token1, 336), (aux_sym__stmt_token1, 340), (aux_sym__stmt_token2, 340),
     (aux_sym__stmt_token3, 340), (aux_sym_if_stmt_token1, 342), (aux_sym_case_stmt_token1, 344),
     (aux_sym_for_stmt_token1, 346), (aux_sym_while_stmt_token1, 348),
     (aux_sym_repeat_stmt_token1, 350), (aux_sym_raise_stmt_token1, 352),
     (aux_sym_try_stmt_token1, 354), (aux_sym_try_stmt_token2, 356),
     (aux_sym_catch_clause_token1, 356), (aux_sym_finally_clause_token1, 356), (sym_ld_rung, 358),
     (sym_fbd_network, 360), (sym_c_style_comment, 3), (sym_pascal_style_comment, 3),
     (sym_pragma, 3)]"

lemma ts_parse_row_572_scan: "row_scan tokens_63_2 0 ts_parse_row_572 = Some (Suc (Suc (Suc (Suc 0))))"
  unfolding ts_parse_row_572_def by simp

text \<open>Lines 119958 to 120070.\<close>

definition ts_parse_row_573 :: parse_row where
  "ts_parse_row_573 =
    [(sym_ERR_assign_func_call, 7530), (sym_ERR_unexpected_this_in_path, 2372),
     (sym_ERR_unexpected_super_in_path, 2372), (sym_ERR_fb_variables_after_method, 1685),
     (sym_ERR_var_access_not_allowed, 3160), (sym_ERR_var_config_not_allowed, 3160),
     (sym_ERR_var_global_not_allowed, 3160), (sym_ERR_method_decl_in_body, 3150),
     (sym_extern_pragma, 7490), (sym_wasm_pragma, 3150), (sym_warn_pragma, 7490),
     (sym_allow_pragma, 3140), (sym_test_pragma, 7490), (sym_once_pragma, 7490),
     (sym_must_call_pragma, 7490), (sym_export_pragma, 7490), (sym_pou_pragma, 7194),
     (sym_direct_variable, 7675), (sym_deref_expression, 2373), (sym_variable, 7599),
     (sym_var_access, 2373), (sym_in_out_decls, 3160), (sym_var_decls, 3160),
     (sym_retain_var_decls, 3160), (sym_temp_var_decls, 3160), (sym_external_var_decls, 3160),
     (sym_global_var_decls, 2947), (sym_loc_partly_var_decl, 3160), (sym__fb_variables, 2347),
     (sym_fb_input_decls, 3160), (sym_fb_output_decls, 3160), (sym_no_retain_var_decls, 3160),
     (sym_fb_body, 9038), (sym_method_decl, 366), (sym_prog_access_decls, 3043), (sym_SFC, 7970),
     (sym_SFC_network, 7612), (sym_initial_step, 7439), (sym_config_init, 3047),
     (sym_variable_access, 7530), (sym_func_call, 2961), (sym_stmt_list, 7970), (sym__stmt, 2024),
     (sym_assign, 3150), (sym_if_stmt, 3150), (sym_case_stmt, 3150), (sym_for_stmt, 3150),
     (sym_while_stmt, 3150), (sym_repeat_stmt, 3150), (sym_raise_stmt, 3150), (sym_try_stmt, 3150),
     (sym_ERR_clause_outside_try, 3150), (sym_begin_path_expression, 2943), (sym_invocation, 2934),
     (sym_any_invocation, 2935), (sym_this_invocation, 2641), (sym_super_invocation, 2641),
     (sym_super_body_invocation, 2935), (sym_path_expression, 2627), (sym_field_expression, 2373),
     (sym_index_expression, 2373), (sym_ladder_diagram, 7970), (sym_fb_diagram, 7970),
     (aux_sym_ERR_fb_variables_after_method_repeat1, 2347), (aux_sym_func_decl_repeat1, 7194),
     (aux_sym_fb_decl_repeat3, 366), (aux_sym_SFC_repeat1, 7612), (aux_sym_stmt_list_repeat1, 2024),
     (aux_sym_ladder_diagram_repeat1, 8009), (aux_sym_fb_diagram_repeat1, 8013),
     (sym_identifier, 298), (aux_sym_ERR_unexpected_this_in_path_token1, 304),
     (aux_sym_ERR_unexpected_super_in_path_token1, 306), (sym_line_comment, 3),
     (anon_sym_LBRACE, 308), (aux_sym_test_pragma_token1, 9), (aux_sym_once_pragma_token1, 11),
     (aux_sym_must_call_pragma_token1, 13), (aux_sym_export_pragma_token1, 15),
     (anon_sym_SEMI, 310), (anon_sym_PERCENT, 312), (aux_sym_input_decls_token1, 314),
     (aux_sym_output_decls_token1, 316), (aux_sym_in_out_decls_token1, 318),
     (aux_sym_var_decls_token1, 320), (aux_sym_temp_var_decls_token1, 322),
     (aux_sym_external_var_decls_token1, 324), (aux_sym_global_var_decls_token1, 326),
     (aux_sym_fb_decl_token4, 1476), (aux_sym_method_decl_token1, 330),
     (aux_sym_prog_access_decls_token1, 332), (aux_sym_initial_step_token1, 334),
     (aux_sym_config_init_token1, 336), (aux_sym__stmt_token1, 340), (aux_sym__stmt_token2, 340),
     (aux_sym__stmt_token3, 340), (aux_sym_if_stmt_token1, 342), (aux_sym_case_stmt_token1, 344),
     (aux_sym_for_stmt_token1, 346), (aux_sym_while_stmt_token1, 348),
     (aux_sym_repeat_stmt_token1, 350), (aux_sym_raise_stmt_token1, 352),
     (aux_sym_try_stmt_token1, 354), (aux_sym_try_stmt_token2, 356),
     (aux_sym_catch_clause_token1, 356), (aux_sym_finally_clause_token1, 356), (sym_ld_rung, 358),
     (sym_fbd_network, 360), (sym_c_style_comment, 3), (sym_pascal_style_comment, 3),
     (sym_pragma, 3)]"

lemma ts_parse_row_573_scan: "row_scan tokens_63_2 0 ts_parse_row_573 = Some (Suc (Suc (Suc (Suc 0))))"
  unfolding ts_parse_row_573_def by simp

text \<open>Lines 120071 to 120183.\<close>

definition ts_parse_row_574 :: parse_row where
  "ts_parse_row_574 =
    [(sym_ERR_assign_func_call, 7530), (sym_ERR_unexpected_this_in_path, 2372),
     (sym_ERR_unexpected_super_in_path, 2372), (sym_ERR_fb_variables_after_method, 1691),
     (sym_ERR_var_access_not_allowed, 3160), (sym_ERR_var_config_not_allowed, 3160),
     (sym_ERR_var_global_not_allowed, 3160), (sym_ERR_method_decl_in_body, 3150),
     (sym_extern_pragma, 7490), (sym_wasm_pragma, 3150), (sym_warn_pragma, 7490),
     (sym_allow_pragma, 3140), (sym_test_pragma, 7490), (sym_once_pragma, 7490),
     (sym_must_call_pragma, 7490), (sym_export_pragma, 7490), (sym_pou_pragma, 7194),
     (sym_direct_variable, 7675), (sym_deref_expression, 2373), (sym_variable, 7599),
     (sym_var_access, 2373), (sym_in_out_decls, 3160), (sym_var_decls, 3160),
     (sym_retain_var_decls, 3160), (sym_temp_var_decls, 3160), (sym_external_var_decls, 3160),
     (sym_global_var_decls, 2947), (sym_loc_partly_var_decl, 3160), (sym__fb_variables, 2343),
     (sym_fb_input_decls, 3160), (sym_fb_output_decls, 3160), (sym_no_retain_var_decls, 3160),
     (sym_fb_body, 9049), (sym_method_decl, 2549), (sym_prog_access_decls, 3043), (sym_SFC, 7970),
     (sym_SFC_network, 7612), (sym_initial_step, 7439), (sym_config_init, 3047),
     (sym_variable_access, 7530), (sym_func_call, 2961), (sym_stmt_list, 7970), (sym__stmt, 2024),
     (sym_assign, 3150), (sym_if_stmt, 3150), (sym_case_stmt, 3150), (sym_for_stmt, 3150),
     (sym_while_stmt, 3150), (sym_repeat_stmt, 3150), (sym_raise_stmt, 3150), (sym_try_stmt, 3150),
     (sym_ERR_clause_outside_try, 3150), (sym_begin_path_expression, 2943), (sym_invocation, 2934),
     (sym_any_invocation, 2935), (sym_this_invocation, 2641), (sym_super_invocation, 2641),
     (sym_super_body_invocation, 2935), (sym_path_expression, 2627), (sym_field_expression, 2373),
     (sym_index_expression, 2373), (sym_ladder_diagram, 7970), (sym_fb_diagram, 7970),
     (aux_sym_ERR_fb_variables_after_method_repeat1, 2343), (aux_sym_func_decl_repeat1, 7194),
     (aux_sym_fb_decl_repeat3, 2549), (aux_sym_SFC_repeat1, 7612),
     (aux_sym_stmt_list_repeat1, 2024), (aux_sym_ladder_diagram_repeat1, 8009),
     (aux_sym_fb_diagram_repeat1, 8013), (sym_identifier, 298),
     (aux_sym_ERR_unexpected_this_in_path_token1, 304),
     (aux_sym_ERR_unexpected_super_in_path_token1, 306), (sym_line_comment, 3),
     (anon_sym_LBRACE, 308), (aux_sym_test_pragma_token1, 9), (aux_sym_once_pragma_token1, 11),
     (aux_sym_must_call_pragma_token1, 13), (aux_sym_export_pragma_token1, 15),
     (anon_sym_SEMI, 310), (anon_sym_PERCENT, 312), (aux_sym_input_decls_token1, 314),
     (aux_sym_output_decls_token1, 316), (aux_sym_in_out_decls_token1, 318),
     (aux_sym_var_decls_token1, 320), (aux_sym_temp_var_decls_token1, 322),
     (aux_sym_external_var_decls_token1, 324), (aux_sym_global_var_decls_token1, 326),
     (aux_sym_fb_decl_token4, 1478), (aux_sym_method_decl_token1, 330),
     (aux_sym_prog_access_decls_token1, 332), (aux_sym_initial_step_token1, 334),
     (aux_sym_config_init_token1, 336), (aux_sym__stmt_token1, 340), (aux_sym__stmt_token2, 340),
     (aux_sym__stmt_token3, 340), (aux_sym_if_stmt_token1, 342), (aux_sym_case_stmt_token1, 344),
     (aux_sym_for_stmt_token1, 346), (aux_sym_while_stmt_token1, 348),
     (aux_sym_repeat_stmt_token1, 350), (aux_sym_raise_stmt_token1, 352),
     (aux_sym_try_stmt_token1, 354), (aux_sym_try_stmt_token2, 356),
     (aux_sym_catch_clause_token1, 356), (aux_sym_finally_clause_token1, 356), (sym_ld_rung, 358),
     (sym_fbd_network, 360), (sym_c_style_comment, 3), (sym_pascal_style_comment, 3),
     (sym_pragma, 3)]"

lemma ts_parse_row_574_scan: "row_scan tokens_63_2 0 ts_parse_row_574 = Some (Suc (Suc (Suc (Suc 0))))"
  unfolding ts_parse_row_574_def by simp

text \<open>Lines 120184 to 120296.\<close>

definition ts_parse_row_575 :: parse_row where
  "ts_parse_row_575 =
    [(sym_ERR_assign_func_call, 7530), (sym_ERR_unexpected_this_in_path, 2372),
     (sym_ERR_unexpected_super_in_path, 2372), (sym_ERR_fb_variables_after_method, 1509),
     (sym_ERR_var_access_not_allowed, 3160), (sym_ERR_var_config_not_allowed, 3160),
     (sym_ERR_var_global_not_allowed, 3160), (sym_ERR_method_decl_in_body, 3150),
     (sym_extern_pragma, 7490), (sym_wasm_pragma, 3150), (sym_warn_pragma, 7490),
     (sym_allow_pragma, 3140), (sym_test_pragma, 7490), (sym_once_pragma, 7490),
     (sym_must_call_pragma, 7490), (sym_export_pragma, 7490), (sym_pou_pragma, 7194),
     (sym_direct_variable, 7675), (sym_deref_expression, 2373), (sym_variable, 7599),
     (sym_var_access, 2373), (sym_in_out_decls, 3160), (sym_var_decls, 3160),
     (sym_retain_var_decls, 3160), (sym_temp_var_decls, 3160), (sym_external_var_decls, 3160),
     (sym_global_var_decls, 2947), (sym_loc_partly_var_decl, 3160), (sym__fb_variables, 2343),
     (sym_fb_input_decls, 3160), (sym_fb_output_decls, 3160), (sym_no_retain_var_decls, 3160),
     (sym_fb_body, 8846), (sym_method_decl, 2549), (sym_prog_access_decls, 3043), (sym_SFC, 7970),
     (sym_SFC_network, 7612), (sym_initial_step, 7439), (sym_config_init, 3047),
     (sym_variable_access, 7530), (sym_func_call, 2961), (sym_stmt_list, 7970), (sym__stmt, 2024),
     (sym_assign, 3150), (sym_if_stmt, 3150), (sym_case_stmt, 3150), (sym_for_stmt, 3150),
     (sym_while_stmt, 3150), (sym_repeat_stmt, 3150), (sym_raise_stmt, 3150), (sym_try_stmt, 3150),
     (sym_ERR_clause_outside_try, 3150), (sym_begin_path_expression, 2943), (sym_invocation, 2934),
     (sym_any_invocation, 2935), (sym_this_invocation, 2641), (sym_super_invocation, 2641),
     (sym_super_body_invocation, 2935), (sym_path_expression, 2627), (sym_field_expression, 2373),
     (sym_index_expression, 2373), (sym_ladder_diagram, 7970), (sym_fb_diagram, 7970),
     (aux_sym_ERR_fb_variables_after_method_repeat1, 2343), (aux_sym_func_decl_repeat1, 7194),
     (aux_sym_fb_decl_repeat3, 2549), (aux_sym_SFC_repeat1, 7612),
     (aux_sym_stmt_list_repeat1, 2024), (aux_sym_ladder_diagram_repeat1, 8009),
     (aux_sym_fb_diagram_repeat1, 8013), (sym_identifier, 298),
     (aux_sym_ERR_unexpected_this_in_path_token1, 304),
     (aux_sym_ERR_unexpected_super_in_path_token1, 306), (sym_line_comment, 3),
     (anon_sym_LBRACE, 308), (aux_sym_test_pragma_token1, 9), (aux_sym_once_pragma_token1, 11),
     (aux_sym_must_call_pragma_token1, 13), (aux_sym_export_pragma_token1, 15),
     (anon_sym_SEMI, 310), (anon_sym_PERCENT, 312), (aux_sym_input_decls_token1, 314),
     (aux_sym_output_decls_token1, 316), (aux_sym_in_out_decls_token1, 318),
     (aux_sym_var_decls_token1, 320), (aux_sym_temp_var_decls_token1, 322),
     (aux_sym_external_var_decls_token1, 324), (aux_sym_global_var_decls_token1, 326),
     (aux_sym_fb_decl_token4, 1480), (aux_sym_method_decl_token1, 330),
     (aux_sym_prog_access_decls_token1, 332), (aux_sym_initial_step_token1, 334),
     (aux_sym_config_init_token1, 336), (aux_sym__stmt_token1, 340), (aux_sym__stmt_token2, 340),
     (aux_sym__stmt_token3, 340), (aux_sym_if_stmt_token1, 342), (aux_sym_case_stmt_token1, 344),
     (aux_sym_for_stmt_token1, 346), (aux_sym_while_stmt_token1, 348),
     (aux_sym_repeat_stmt_token1, 350), (aux_sym_raise_stmt_token1, 352),
     (aux_sym_try_stmt_token1, 354), (aux_sym_try_stmt_token2, 356),
     (aux_sym_catch_clause_token1, 356), (aux_sym_finally_clause_token1, 356), (sym_ld_rung, 358),
     (sym_fbd_network, 360), (sym_c_style_comment, 3), (sym_pascal_style_comment, 3),
     (sym_pragma, 3)]"

lemma ts_parse_row_575_scan: "row_scan tokens_63_2 0 ts_parse_row_575 = Some (Suc (Suc (Suc (Suc 0))))"
  unfolding ts_parse_row_575_def by simp

text \<open>Lines 120297 to 120409.\<close>

definition ts_parse_row_576 :: parse_row where
  "ts_parse_row_576 =
    [(sym_ERR_assign_func_call, 7530), (sym_ERR_unexpected_this_in_path, 2372),
     (sym_ERR_unexpected_super_in_path, 2372), (sym_ERR_fb_variables_after_method, 1510),
     (sym_ERR_var_access_not_allowed, 3160), (sym_ERR_var_config_not_allowed, 3160),
     (sym_ERR_var_global_not_allowed, 3160), (sym_ERR_method_decl_in_body, 3150),
     (sym_extern_pragma, 7490), (sym_wasm_pragma, 3150), (sym_warn_pragma, 7490),
     (sym_allow_pragma, 3140), (sym_test_pragma, 7490), (sym_once_pragma, 7490),
     (sym_must_call_pragma, 7490), (sym_export_pragma, 7490), (sym_pou_pragma, 7194),
     (sym_direct_variable, 7675), (sym_deref_expression, 2373), (sym_variable, 7599),
     (sym_var_access, 2373), (sym_in_out_decls, 3160), (sym_var_decls, 3160),
     (sym_retain_var_decls, 3160), (sym_temp_var_decls, 3160), (sym_external_var_decls, 3160),
     (sym_global_var_decls, 2947), (sym_loc_partly_var_decl, 3160), (sym__fb_variables, 2347),
     (sym_fb_input_decls, 3160), (sym_fb_output_decls, 3160), (sym_no_retain_var_decls, 3160),
     (sym_fb_body, 8866), (sym_method_decl, 702), (sym_prog_access_decls, 3043), (sym_SFC, 7970),
     (sym_SFC_network, 7612), (sym_initial_step, 7439), (sym_config_init, 3047),
     (sym_variable_access, 7530), (sym_func_call, 2961), (sym_stmt_list, 7970), (sym__stmt, 2024),
     (sym_assign, 3150), (sym_if_stmt, 3150), (sym_case_stmt, 3150), (sym_for_stmt, 3150),
     (sym_while_stmt, 3150), (sym_repeat_stmt, 3150), (sym_raise_stmt, 3150), (sym_try_stmt, 3150),
     (sym_ERR_clause_outside_try, 3150), (sym_begin_path_expression, 2943), (sym_invocation, 2934),
     (sym_any_invocation, 2935), (sym_this_invocation, 2641), (sym_super_invocation, 2641),
     (sym_super_body_invocation, 2935), (sym_path_expression, 2627), (sym_field_expression, 2373),
     (sym_index_expression, 2373), (sym_ladder_diagram, 7970), (sym_fb_diagram, 7970),
     (aux_sym_ERR_fb_variables_after_method_repeat1, 2347), (aux_sym_func_decl_repeat1, 7194),
     (aux_sym_fb_decl_repeat3, 702), (aux_sym_SFC_repeat1, 7612), (aux_sym_stmt_list_repeat1, 2024),
     (aux_sym_ladder_diagram_repeat1, 8009), (aux_sym_fb_diagram_repeat1, 8013),
     (sym_identifier, 298), (aux_sym_ERR_unexpected_this_in_path_token1, 304),
     (aux_sym_ERR_unexpected_super_in_path_token1, 306), (sym_line_comment, 3),
     (anon_sym_LBRACE, 308), (aux_sym_test_pragma_token1, 9), (aux_sym_once_pragma_token1, 11),
     (aux_sym_must_call_pragma_token1, 13), (aux_sym_export_pragma_token1, 15),
     (anon_sym_SEMI, 310), (anon_sym_PERCENT, 312), (aux_sym_input_decls_token1, 314),
     (aux_sym_output_decls_token1, 316), (aux_sym_in_out_decls_token1, 318),
     (aux_sym_var_decls_token1, 320), (aux_sym_temp_var_decls_token1, 322),
     (aux_sym_external_var_decls_token1, 324), (aux_sym_global_var_decls_token1, 326),
     (aux_sym_fb_decl_token4, 1482), (aux_sym_method_decl_token1, 330),
     (aux_sym_prog_access_decls_token1, 332), (aux_sym_initial_step_token1, 334),
     (aux_sym_config_init_token1, 336), (aux_sym__stmt_token1, 340), (aux_sym__stmt_token2, 340),
     (aux_sym__stmt_token3, 340), (aux_sym_if_stmt_token1, 342), (aux_sym_case_stmt_token1, 344),
     (aux_sym_for_stmt_token1, 346), (aux_sym_while_stmt_token1, 348),
     (aux_sym_repeat_stmt_token1, 350), (aux_sym_raise_stmt_token1, 352),
     (aux_sym_try_stmt_token1, 354), (aux_sym_try_stmt_token2, 356),
     (aux_sym_catch_clause_token1, 356), (aux_sym_finally_clause_token1, 356), (sym_ld_rung, 358),
     (sym_fbd_network, 360), (sym_c_style_comment, 3), (sym_pascal_style_comment, 3),
     (sym_pragma, 3)]"

lemma ts_parse_row_576_scan: "row_scan tokens_63_2 0 ts_parse_row_576 = Some (Suc (Suc (Suc (Suc 0))))"
  unfolding ts_parse_row_576_def by simp

text \<open>Lines 120410 to 120522.\<close>

definition ts_parse_row_577 :: parse_row where
  "ts_parse_row_577 =
    [(sym_ERR_assign_func_call, 7530), (sym_ERR_unexpected_this_in_path, 2372),
     (sym_ERR_unexpected_super_in_path, 2372), (sym_ERR_fb_variables_after_method, 1693),
     (sym_ERR_var_access_not_allowed, 3160), (sym_ERR_var_config_not_allowed, 3160),
     (sym_ERR_var_global_not_allowed, 3160), (sym_ERR_method_decl_in_body, 3150),
     (sym_extern_pragma, 7490), (sym_wasm_pragma, 3150), (sym_warn_pragma, 7490),
     (sym_allow_pragma, 3140), (sym_test_pragma, 7490), (sym_once_pragma, 7490),
     (sym_must_call_pragma, 7490), (sym_export_pragma, 7490), (sym_pou_pragma, 7194),
     (sym_direct_variable, 7675), (sym_deref_expression, 2373), (sym_variable, 7599),
     (sym_var_access, 2373), (sym_in_out_decls, 3160), (sym_var_decls, 3160),
     (sym_retain_var_decls, 3160), (sym_temp_var_decls, 3160), (sym_external_var_decls, 3160),
     (sym_global_var_decls, 2947), (sym_loc_partly_var_decl, 3160), (sym__fb_variables, 2347),
     (sym_fb_input_decls, 3160), (sym_fb_output_decls, 3160), (sym_no_retain_var_decls, 3160),
     (sym_fb_body, 9071), (sym_method_decl, 367), (sym_prog_access_decls, 3043), (sym_SFC, 7970),
     (sym_SFC_network, 7612), (sym_initial_step, 7439), (sym_config_init, 3047),
     (sym_variable_access, 7530), (sym_func_call, 2961), (sym_stmt_list, 7970), (sym__stmt, 2024),
     (sym_assign, 3150), (sym_if_stmt, 3150), (sym_case_stmt, 3150), (sym_for_stmt, 3150),
     (sym_while_stmt, 3150), (sym_repeat_stmt, 3150), (sym_raise_stmt, 3150), (sym_try_stmt, 3150),
     (sym_ERR_clause_outside_try, 3150), (sym_begin_path_expression, 2943), (sym_invocation, 2934),
     (sym_any_invocation, 2935), (sym_this_invocation, 2641), (sym_super_invocation, 2641),
     (sym_super_body_invocation, 2935), (sym_path_expression, 2627), (sym_field_expression, 2373),
     (sym_index_expression, 2373), (sym_ladder_diagram, 7970), (sym_fb_diagram, 7970),
     (aux_sym_ERR_fb_variables_after_method_repeat1, 2347), (aux_sym_func_decl_repeat1, 7194),
     (aux_sym_fb_decl_repeat3, 367), (aux_sym_SFC_repeat1, 7612), (aux_sym_stmt_list_repeat1, 2024),
     (aux_sym_ladder_diagram_repeat1, 8009), (aux_sym_fb_diagram_repeat1, 8013),
     (sym_identifier, 298), (aux_sym_ERR_unexpected_this_in_path_token1, 304),
     (aux_sym_ERR_unexpected_super_in_path_token1, 306), (sym_line_comment, 3),
     (anon_sym_LBRACE, 308), (aux_sym_test_pragma_token1, 9), (aux_sym_once_pragma_token1, 11),
     (aux_sym_must_call_pragma_token1, 13), (aux_sym_export_pragma_token1, 15),
     (anon_sym_SEMI, 310), (anon_sym_PERCENT, 312), (aux_sym_input_decls_token1, 314),
     (aux_sym_output_decls_token1, 316), (aux_sym_in_out_decls_token1, 318),
     (aux_sym_var_decls_token1, 320), (aux_sym_temp_var_decls_token1, 322),
     (aux_sym_external_var_decls_token1, 324), (aux_sym_global_var_decls_token1, 326),
     (aux_sym_fb_decl_token4, 1484), (aux_sym_method_decl_token1, 330),
     (aux_sym_prog_access_decls_token1, 332), (aux_sym_initial_step_token1, 334),
     (aux_sym_config_init_token1, 336), (aux_sym__stmt_token1, 340), (aux_sym__stmt_token2, 340),
     (aux_sym__stmt_token3, 340), (aux_sym_if_stmt_token1, 342), (aux_sym_case_stmt_token1, 344),
     (aux_sym_for_stmt_token1, 346), (aux_sym_while_stmt_token1, 348),
     (aux_sym_repeat_stmt_token1, 350), (aux_sym_raise_stmt_token1, 352),
     (aux_sym_try_stmt_token1, 354), (aux_sym_try_stmt_token2, 356),
     (aux_sym_catch_clause_token1, 356), (aux_sym_finally_clause_token1, 356), (sym_ld_rung, 358),
     (sym_fbd_network, 360), (sym_c_style_comment, 3), (sym_pascal_style_comment, 3),
     (sym_pragma, 3)]"

lemma ts_parse_row_577_scan: "row_scan tokens_63_2 0 ts_parse_row_577 = Some (Suc (Suc (Suc (Suc 0))))"
  unfolding ts_parse_row_577_def by simp

text \<open>Lines 120523 to 120635.\<close>

definition ts_parse_row_578 :: parse_row where
  "ts_parse_row_578 =
    [(sym_ERR_assign_func_call, 7530), (sym_ERR_unexpected_this_in_path, 2372),
     (sym_ERR_unexpected_super_in_path, 2372), (sym_ERR_fb_variables_after_method, 1261),
     (sym_ERR_var_access_not_allowed, 3160), (sym_ERR_var_config_not_allowed, 3160),
     (sym_ERR_var_global_not_allowed, 3160), (sym_ERR_method_decl_in_body, 3150),
     (sym_extern_pragma, 7490), (sym_wasm_pragma, 3150), (sym_warn_pragma, 7490),
     (sym_allow_pragma, 3140), (sym_test_pragma, 7490), (sym_once_pragma, 7490),
     (sym_must_call_pragma, 7490), (sym_export_pragma, 7490), (sym_pou_pragma, 7194),
     (sym_direct_variable, 7675), (sym_deref_expression, 2373), (sym_variable, 7599),
     (sym_var_access, 2373), (sym_in_out_decls, 3160), (sym_var_decls, 3160),
     (sym_retain_var_decls, 3160), (sym_temp_var_decls, 3160), (sym_external_var_decls, 3160),
     (sym_global_var_decls, 2947), (sym_loc_partly_var_decl, 3160), (sym__fb_variables, 2343),
     (sym_fb_input_decls, 3160), (sym_fb_output_decls, 3160), (sym_no_retain_var_decls, 3160),
     (sym_fb_body, 9596), (sym_method_decl, 2549), (sym_prog_access_decls, 3043), (sym_SFC, 7970),
     (sym_SFC_network, 7612), (sym_initial_step, 7439), (sym_config_init, 3047),
     (sym_variable_access, 7530), (sym_func_call, 2961), (sym_stmt_list, 7970), (sym__stmt, 2024),
     (sym_assign, 3150), (sym_if_stmt, 3150), (sym_case_stmt, 3150), (sym_for_stmt, 3150),
     (sym_while_stmt, 3150), (sym_repeat_stmt, 3150), (sym_raise_stmt, 3150), (sym_try_stmt, 3150),
     (sym_ERR_clause_outside_try, 3150), (sym_begin_path_expression, 2943), (sym_invocation, 2934),
     (sym_any_invocation, 2935), (sym_this_invocation, 2641), (sym_super_invocation, 2641),
     (sym_super_body_invocation, 2935), (sym_path_expression, 2627), (sym_field_expression, 2373),
     (sym_index_expression, 2373), (sym_ladder_diagram, 7970), (sym_fb_diagram, 7970),
     (aux_sym_ERR_fb_variables_after_method_repeat1, 2343), (aux_sym_func_decl_repeat1, 7194),
     (aux_sym_fb_decl_repeat3, 2549), (aux_sym_SFC_repeat1, 7612),
     (aux_sym_stmt_list_repeat1, 2024), (aux_sym_ladder_diagram_repeat1, 8009),
     (aux_sym_fb_diagram_repeat1, 8013), (sym_identifier, 298),
     (aux_sym_ERR_unexpected_this_in_path_token1, 304),
     (aux_sym_ERR_unexpected_super_in_path_token1, 306), (sym_line_comment, 3),
     (anon_sym_LBRACE, 308), (aux_sym_test_pragma_token1, 9), (aux_sym_once_pragma_token1, 11),
     (aux_sym_must_call_pragma_token1, 13), (aux_sym_export_pragma_token1, 15),
     (anon_sym_SEMI, 310), (anon_sym_PERCENT, 312), (aux_sym_input_decls_token1, 314),
     (aux_sym_output_decls_token1, 316), (aux_sym_in_out_decls_token1, 318),
     (aux_sym_var_decls_token1, 320), (aux_sym_temp_var_decls_token1, 322),
     (aux_sym_external_var_decls_token1, 324), (aux_sym_global_var_decls_token1, 326),
     (aux_sym_fb_decl_token4, 1486), (aux_sym_method_decl_token1, 330),
     (aux_sym_prog_access_decls_token1, 332), (aux_sym_initial_step_token1, 334),
     (aux_sym_config_init_token1, 336), (aux_sym__stmt_token1, 340), (aux_sym__stmt_token2, 340),
     (aux_sym__stmt_token3, 340), (aux_sym_if_stmt_token1, 342), (aux_sym_case_stmt_token1, 344),
     (aux_sym_for_stmt_token1, 346), (aux_sym_while_stmt_token1, 348),
     (aux_sym_repeat_stmt_token1, 350), (aux_sym_raise_stmt_token1, 352),
     (aux_sym_try_stmt_token1, 354), (aux_sym_try_stmt_token2, 356),
     (aux_sym_catch_clause_token1, 356), (aux_sym_finally_clause_token1, 356), (sym_ld_rung, 358),
     (sym_fbd_network, 360), (sym_c_style_comment, 3), (sym_pascal_style_comment, 3),
     (sym_pragma, 3)]"

lemma ts_parse_row_578_scan: "row_scan tokens_63_2 0 ts_parse_row_578 = Some (Suc (Suc (Suc (Suc 0))))"
  unfolding ts_parse_row_578_def by simp

text \<open>Lines 120636 to 120748.\<close>

definition ts_parse_row_579 :: parse_row where
  "ts_parse_row_579 =
    [(sym_ERR_assign_func_call, 7530), (sym_ERR_unexpected_this_in_path, 2372),
     (sym_ERR_unexpected_super_in_path, 2372), (sym_ERR_fb_variables_after_method, 1515),
     (sym_ERR_var_access_not_allowed, 3160), (sym_ERR_var_config_not_allowed, 3160),
     (sym_ERR_var_global_not_allowed, 3160), (sym_ERR_method_decl_in_body, 3150),
     (sym_extern_pragma, 7490), (sym_wasm_pragma, 3150), (sym_warn_pragma, 7490),
     (sym_allow_pragma, 3140), (sym_test_pragma, 7490), (sym_once_pragma, 7490),
     (sym_must_call_pragma, 7490), (sym_export_pragma, 7490), (sym_pou_pragma, 7194),
     (sym_direct_variable, 7675), (sym_deref_expression, 2373), (sym_variable, 7599),
     (sym_var_access, 2373), (sym_in_out_decls, 3160), (sym_var_decls, 3160),
     (sym_retain_var_decls, 3160), (sym_temp_var_decls, 3160), (sym_external_var_decls, 3160),
     (sym_global_var_decls, 2947), (sym_loc_partly_var_decl, 3160), (sym__fb_variables, 2343),
     (sym_fb_input_decls, 3160), (sym_fb_output_decls, 3160), (sym_no_retain_var_decls, 3160),
     (sym_fb_body, 8883), (sym_method_decl, 2549), (sym_prog_access_decls, 3043), (sym_SFC, 7970),
     (sym_SFC_network, 7612), (sym_initial_step, 7439), (sym_config_init, 3047),
     (sym_variable_access, 7530), (sym_func_call, 2961), (sym_stmt_list, 7970), (sym__stmt, 2024),
     (sym_assign, 3150), (sym_if_stmt, 3150), (sym_case_stmt, 3150), (sym_for_stmt, 3150),
     (sym_while_stmt, 3150), (sym_repeat_stmt, 3150), (sym_raise_stmt, 3150), (sym_try_stmt, 3150),
     (sym_ERR_clause_outside_try, 3150), (sym_begin_path_expression, 2943), (sym_invocation, 2934),
     (sym_any_invocation, 2935), (sym_this_invocation, 2641), (sym_super_invocation, 2641),
     (sym_super_body_invocation, 2935), (sym_path_expression, 2627), (sym_field_expression, 2373),
     (sym_index_expression, 2373), (sym_ladder_diagram, 7970), (sym_fb_diagram, 7970),
     (aux_sym_ERR_fb_variables_after_method_repeat1, 2343), (aux_sym_func_decl_repeat1, 7194),
     (aux_sym_fb_decl_repeat3, 2549), (aux_sym_SFC_repeat1, 7612),
     (aux_sym_stmt_list_repeat1, 2024), (aux_sym_ladder_diagram_repeat1, 8009),
     (aux_sym_fb_diagram_repeat1, 8013), (sym_identifier, 298),
     (aux_sym_ERR_unexpected_this_in_path_token1, 304),
     (aux_sym_ERR_unexpected_super_in_path_token1, 306), (sym_line_comment, 3),
     (anon_sym_LBRACE, 308), (aux_sym_test_pragma_token1, 9), (aux_sym_once_pragma_token1, 11),
     (aux_sym_must_call_pragma_token1, 13), (aux_sym_export_pragma_token1, 15),
     (anon_sym_SEMI, 310), (anon_sym_PERCENT, 312), (aux_sym_input_decls_token1, 314),
     (aux_sym_output_decls_token1, 316), (aux_sym_in_out_decls_token1, 318),
     (aux_sym_var_decls_token1, 320), (aux_sym_temp_var_decls_token1, 322),
     (aux_sym_external_var_decls_token1, 324), (aux_sym_global_var_decls_token1, 326),
     (aux_sym_fb_decl_token4, 1488), (aux_sym_method_decl_token1, 330),
     (aux_sym_prog_access_decls_token1, 332), (aux_sym_initial_step_token1, 334),
     (aux_sym_config_init_token1, 336), (aux_sym__stmt_token1, 340), (aux_sym__stmt_token2, 340),
     (aux_sym__stmt_token3, 340), (aux_sym_if_stmt_token1, 342), (aux_sym_case_stmt_token1, 344),
     (aux_sym_for_stmt_token1, 346), (aux_sym_while_stmt_token1, 348),
     (aux_sym_repeat_stmt_token1, 350), (aux_sym_raise_stmt_token1, 352),
     (aux_sym_try_stmt_token1, 354), (aux_sym_try_stmt_token2, 356),
     (aux_sym_catch_clause_token1, 356), (aux_sym_finally_clause_token1, 356), (sym_ld_rung, 358),
     (sym_fbd_network, 360), (sym_c_style_comment, 3), (sym_pascal_style_comment, 3),
     (sym_pragma, 3)]"

lemma ts_parse_row_579_scan: "row_scan tokens_63_2 0 ts_parse_row_579 = Some (Suc (Suc (Suc (Suc 0))))"
  unfolding ts_parse_row_579_def by simp

text \<open>Lines 120749 to 120861.\<close>

definition ts_parse_row_580 :: parse_row where
  "ts_parse_row_580 =
    [(sym_ERR_assign_func_call, 7530), (sym_ERR_unexpected_this_in_path, 2372),
     (sym_ERR_unexpected_super_in_path, 2372), (sym_ERR_fb_variables_after_method, 1516),
     (sym_ERR_var_access_not_allowed, 3160), (sym_ERR_var_config_not_allowed, 3160),
     (sym_ERR_var_global_not_allowed, 3160), (sym_ERR_method_decl_in_body, 3150),
     (sym_extern_pragma, 7490), (sym_wasm_pragma, 3150), (sym_warn_pragma, 7490),
     (sym_allow_pragma, 3140), (sym_test_pragma, 7490), (sym_once_pragma, 7490),
     (sym_must_call_pragma, 7490), (sym_export_pragma, 7490), (sym_pou_pragma, 7194),
     (sym_direct_variable, 7675), (sym_deref_expression, 2373), (sym_variable, 7599),
     (sym_var_access, 2373), (sym_in_out_decls, 3160), (sym_var_decls, 3160),
     (sym_retain_var_decls, 3160), (sym_temp_var_decls, 3160), (sym_external_var_decls, 3160),
     (sym_global_var_decls, 2947), (sym_loc_partly_var_decl, 3160), (sym__fb_variables, 2343),
     (sym_fb_input_decls, 3160), (sym_fb_output_decls, 3160), (sym_no_retain_var_decls, 3160),
     (sym_fb_body, 8897), (sym_method_decl, 2549), (sym_prog_access_decls, 3043), (sym_SFC, 7970),
     (sym_SFC_network, 7612), (sym_initial_step, 7439), (sym_config_init, 3047),
     (sym_variable_access, 7530), (sym_func_call, 2961), (sym_stmt_list, 7970), (sym__stmt, 2024),
     (sym_assign, 3150), (sym_if_stmt, 3150), (sym_case_stmt, 3150), (sym_for_stmt, 3150),
     (sym_while_stmt, 3150), (sym_repeat_stmt, 3150), (sym_raise_stmt, 3150), (sym_try_stmt, 3150),
     (sym_ERR_clause_outside_try, 3150), (sym_begin_path_expression, 2943), (sym_invocation, 2934),
     (sym_any_invocation, 2935), (sym_this_invocation, 2641), (sym_super_invocation, 2641),
     (sym_super_body_invocation, 2935), (sym_path_expression, 2627), (sym_field_expression, 2373),
     (sym_index_expression, 2373), (sym_ladder_diagram, 7970), (sym_fb_diagram, 7970),
     (aux_sym_ERR_fb_variables_after_method_repeat1, 2343), (aux_sym_func_decl_repeat1, 7194),
     (aux_sym_fb_decl_repeat3, 2549), (aux_sym_SFC_repeat1, 7612),
     (aux_sym_stmt_list_repeat1, 2024), (aux_sym_ladder_diagram_repeat1, 8009),
     (aux_sym_fb_diagram_repeat1, 8013), (sym_identifier, 298),
     (aux_sym_ERR_unexpected_this_in_path_token1, 304),
     (aux_sym_ERR_unexpected_super_in_path_token1, 306), (sym_line_comment, 3),
     (anon_sym_LBRACE, 308), (aux_sym_test_pragma_token1, 9), (aux_sym_once_pragma_token1, 11),
     (aux_sym_must_call_pragma_token1, 13), (aux_sym_export_pragma_token1, 15),
     (anon_sym_SEMI, 310), (anon_sym_PERCENT, 312), (aux_sym_input_decls_token1, 314),
     (aux_sym_output_decls_token1, 316), (aux_sym_in_out_decls_token1, 318),
     (aux_sym_var_decls_token1, 320), (aux_sym_temp_var_decls_token1, 322),
     (aux_sym_external_var_decls_token1, 324), (aux_sym_global_var_decls_token1, 326),
     (aux_sym_fb_decl_token4, 1490), (aux_sym_method_decl_token1, 330),
     (aux_sym_prog_access_decls_token1, 332), (aux_sym_initial_step_token1, 334),
     (aux_sym_config_init_token1, 336), (aux_sym__stmt_token1, 340), (aux_sym__stmt_token2, 340),
     (aux_sym__stmt_token3, 340), (aux_sym_if_stmt_token1, 342), (aux_sym_case_stmt_token1, 344),
     (aux_sym_for_stmt_token1, 346), (aux_sym_while_stmt_token1, 348),
     (aux_sym_repeat_stmt_token1, 350), (aux_sym_raise_stmt_token1, 352),
     (aux_sym_try_stmt_token1, 354), (aux_sym_try_stmt_token2, 356),
     (aux_sym_catch_clause_token1, 356), (aux_sym_finally_clause_token1, 356), (sym_ld_rung, 358),
     (sym_fbd_network, 360), (sym_c_style_comment, 3), (sym_pascal_style_comment, 3),
     (sym_pragma, 3)]"

lemma ts_parse_row_580_scan: "row_scan tokens_63_2 0 ts_parse_row_580 = Some (Suc (Suc (Suc (Suc 0))))"
  unfolding ts_parse_row_580_def by simp

text \<open>Lines 120862 to 120974.\<close>

definition ts_parse_row_581 :: parse_row where
  "ts_parse_row_581 =
    [(sym_ERR_assign_func_call, 7530), (sym_ERR_unexpected_this_in_path, 2372),
     (sym_ERR_unexpected_super_in_path, 2372), (sym_ERR_fb_variables_after_method, 1517),
     (sym_ERR_var_access_not_allowed, 3160), (sym_ERR_var_config_not_allowed, 3160),
     (sym_ERR_var_global_not_allowed, 3160), (sym_ERR_method_decl_in_body, 3150),
     (sym_extern_pragma, 7490), (sym_wasm_pragma, 3150), (sym_warn_pragma, 7490),
     (sym_allow_pragma, 3140), (sym_test_pragma, 7490), (sym_once_pragma, 7490),
     (sym_must_call_pragma, 7490), (sym_export_pragma, 7490), (sym_pou_pragma, 7194),
     (sym_direct_variable, 7675), (sym_deref_expression, 2373), (sym_variable, 7599),
     (sym_var_access, 2373), (sym_in_out_decls, 3160), (sym_var_decls, 3160),
     (sym_retain_var_decls, 3160), (sym_temp_var_decls, 3160), (sym_external_var_decls, 3160),
     (sym_global_var_decls, 2947), (sym_loc_partly_var_decl, 3160), (sym__fb_variables, 2343),
     (sym_fb_input_decls, 3160), (sym_fb_output_decls, 3160), (sym_no_retain_var_decls, 3160),
     (sym_fb_body, 8909), (sym_method_decl, 2549), (sym_prog_access_decls, 3043), (sym_SFC, 7970),
     (sym_SFC_network, 7612), (sym_initial_step, 7439), (sym_config_init, 3047),
     (sym_variable_access, 7530), (sym_func_call, 2961), (sym_stmt_list, 7970), (sym__stmt, 2024),
     (sym_assign, 3150), (sym_if_stmt, 3150), (sym_case_stmt, 3150), (sym_for_stmt, 3150),
     (sym_while_stmt, 3150), (sym_repeat_stmt, 3150), (sym_raise_stmt, 3150), (sym_try_stmt, 3150),
     (sym_ERR_clause_outside_try, 3150), (sym_begin_path_expression, 2943), (sym_invocation, 2934),
     (sym_any_invocation, 2935), (sym_this_invocation, 2641), (sym_super_invocation, 2641),
     (sym_super_body_invocation, 2935), (sym_path_expression, 2627), (sym_field_expression, 2373),
     (sym_index_expression, 2373), (sym_ladder_diagram, 7970), (sym_fb_diagram, 7970),
     (aux_sym_ERR_fb_variables_after_method_repeat1, 2343), (aux_sym_func_decl_repeat1, 7194),
     (aux_sym_fb_decl_repeat3, 2549), (aux_sym_SFC_repeat1, 7612),
     (aux_sym_stmt_list_repeat1, 2024), (aux_sym_ladder_diagram_repeat1, 8009),
     (aux_sym_fb_diagram_repeat1, 8013), (sym_identifier, 298),
     (aux_sym_ERR_unexpected_this_in_path_token1, 304),
     (aux_sym_ERR_unexpected_super_in_path_token1, 306), (sym_line_comment, 3),
     (anon_sym_LBRACE, 308), (aux_sym_test_pragma_token1, 9), (aux_sym_once_pragma_token1, 11),
     (aux_sym_must_call_pragma_token1, 13), (aux_sym_export_pragma_token1, 15),
     (anon_sym_SEMI, 310), (anon_sym_PERCENT, 312), (aux_sym_input_decls_token1, 314),
     (aux_sym_output_decls_token1, 316), (aux_sym_in_out_decls_token1, 318),
     (aux_sym_var_decls_token1, 320), (aux_sym_temp_var_decls_token1, 322),
     (aux_sym_external_var_decls_token1, 324), (aux_sym_global_var_decls_token1, 326),
     (aux_sym_fb_decl_token4, 1492), (aux_sym_method_decl_token1, 330),
     (aux_sym_prog_access_decls_token1, 332), (aux_sym_initial_step_token1, 334),
     (aux_sym_config_init_token1, 336), (aux_sym__stmt_token1, 340), (aux_sym__stmt_token2, 340),
     (aux_sym__stmt_token3, 340), (aux_sym_if_stmt_token1, 342), (aux_sym_case_stmt_token1, 344),
     (aux_sym_for_stmt_token1, 346), (aux_sym_while_stmt_token1, 348),
     (aux_sym_repeat_stmt_token1, 350), (aux_sym_raise_stmt_token1, 352),
     (aux_sym_try_stmt_token1, 354), (aux_sym_try_stmt_token2, 356),
     (aux_sym_catch_clause_token1, 356), (aux_sym_finally_clause_token1, 356), (sym_ld_rung, 358),
     (sym_fbd_network, 360), (sym_c_style_comment, 3), (sym_pascal_style_comment, 3),
     (sym_pragma, 3)]"

lemma ts_parse_row_581_scan: "row_scan tokens_63_2 0 ts_parse_row_581 = Some (Suc (Suc (Suc (Suc 0))))"
  unfolding ts_parse_row_581_def by simp

text \<open>Lines 120975 to 121087.\<close>

definition ts_parse_row_582 :: parse_row where
  "ts_parse_row_582 =
    [(sym_ERR_assign_func_call, 7530), (sym_ERR_unexpected_this_in_path, 2372),
     (sym_ERR_unexpected_super_in_path, 2372), (sym_ERR_fb_variables_after_method, 1518),
     (sym_ERR_var_access_not_allowed, 3160), (sym_ERR_var_config_not_allowed, 3160),
     (sym_ERR_var_global_not_allowed, 3160), (sym_ERR_method_decl_in_body, 3150),
     (sym_extern_pragma, 7490), (sym_wasm_pragma, 3150), (sym_warn_pragma, 7490),
     (sym_allow_pragma, 3140), (sym_test_pragma, 7490), (sym_once_pragma, 7490),
     (sym_must_call_pragma, 7490), (sym_export_pragma, 7490), (sym_pou_pragma, 7194),
     (sym_direct_variable, 7675), (sym_deref_expression, 2373), (sym_variable, 7599),
     (sym_var_access, 2373), (sym_in_out_decls, 3160), (sym_var_decls, 3160),
     (sym_retain_var_decls, 3160), (sym_temp_var_decls, 3160), (sym_external_var_decls, 3160),
     (sym_global_var_decls, 2947), (sym_loc_partly_var_decl, 3160), (sym__fb_variables, 2347),
     (sym_fb_input_decls, 3160), (sym_fb_output_decls, 3160), (sym_no_retain_var_decls, 3160),
     (sym_fb_body, 8917), (sym_method_decl, 708), (sym_prog_access_decls, 3043), (sym_SFC, 7970),
     (sym_SFC_network, 7612), (sym_initial_step, 7439), (sym_config_init, 3047),
     (sym_variable_access, 7530), (sym_func_call, 2961), (sym_stmt_list, 7970), (sym__stmt, 2024),
     (sym_assign, 3150), (sym_if_stmt, 3150), (sym_case_stmt, 3150), (sym_for_stmt, 3150),
     (sym_while_stmt, 3150), (sym_repeat_stmt, 3150), (sym_raise_stmt, 3150), (sym_try_stmt, 3150),
     (sym_ERR_clause_outside_try, 3150), (sym_begin_path_expression, 2943), (sym_invocation, 2934),
     (sym_any_invocation, 2935), (sym_this_invocation, 2641), (sym_super_invocation, 2641),
     (sym_super_body_invocation, 2935), (sym_path_expression, 2627), (sym_field_expression, 2373),
     (sym_index_expression, 2373), (sym_ladder_diagram, 7970), (sym_fb_diagram, 7970),
     (aux_sym_ERR_fb_variables_after_method_repeat1, 2347), (aux_sym_func_decl_repeat1, 7194),
     (aux_sym_fb_decl_repeat3, 708), (aux_sym_SFC_repeat1, 7612), (aux_sym_stmt_list_repeat1, 2024),
     (aux_sym_ladder_diagram_repeat1, 8009), (aux_sym_fb_diagram_repeat1, 8013),
     (sym_identifier, 298), (aux_sym_ERR_unexpected_this_in_path_token1, 304),
     (aux_sym_ERR_unexpected_super_in_path_token1, 306), (sym_line_comment, 3),
     (anon_sym_LBRACE, 308), (aux_sym_test_pragma_token1, 9), (aux_sym_once_pragma_token1, 11),
     (aux_sym_must_call_pragma_token1, 13), (aux_sym_export_pragma_token1, 15),
     (anon_sym_SEMI, 310), (anon_sym_PERCENT, 312), (aux_sym_input_decls_token1, 314),
     (aux_sym_output_decls_token1, 316), (aux_sym_in_out_decls_token1, 318),
     (aux_sym_var_decls_token1, 320), (aux_sym_temp_var_decls_token1, 322),
     (aux_sym_external_var_decls_token1, 324), (aux_sym_global_var_decls_token1, 326),
     (aux_sym_fb_decl_token4, 1494), (aux_sym_method_decl_token1, 330),
     (aux_sym_prog_access_decls_token1, 332), (aux_sym_initial_step_token1, 334),
     (aux_sym_config_init_token1, 336), (aux_sym__stmt_token1, 340), (aux_sym__stmt_token2, 340),
     (aux_sym__stmt_token3, 340), (aux_sym_if_stmt_token1, 342), (aux_sym_case_stmt_token1, 344),
     (aux_sym_for_stmt_token1, 346), (aux_sym_while_stmt_token1, 348),
     (aux_sym_repeat_stmt_token1, 350), (aux_sym_raise_stmt_token1, 352),
     (aux_sym_try_stmt_token1, 354), (aux_sym_try_stmt_token2, 356),
     (aux_sym_catch_clause_token1, 356), (aux_sym_finally_clause_token1, 356), (sym_ld_rung, 358),
     (sym_fbd_network, 360), (sym_c_style_comment, 3), (sym_pascal_style_comment, 3),
     (sym_pragma, 3)]"

lemma ts_parse_row_582_scan: "row_scan tokens_63_2 0 ts_parse_row_582 = Some (Suc (Suc (Suc (Suc 0))))"
  unfolding ts_parse_row_582_def by simp

text \<open>Lines 121088 to 121200.\<close>

definition ts_parse_row_583 :: parse_row where
  "ts_parse_row_583 =
    [(sym_ERR_assign_func_call, 7530), (sym_ERR_unexpected_this_in_path, 2372),
     (sym_ERR_unexpected_super_in_path, 2372), (sym_ERR_fb_variables_after_method, 1519),
     (sym_ERR_var_access_not_allowed, 3160), (sym_ERR_var_config_not_allowed, 3160),
     (sym_ERR_var_global_not_allowed, 3160), (sym_ERR_method_decl_in_body, 3150),
     (sym_extern_pragma, 7490), (sym_wasm_pragma, 3150), (sym_warn_pragma, 7490),
     (sym_allow_pragma, 3140), (sym_test_pragma, 7490), (sym_once_pragma, 7490),
     (sym_must_call_pragma, 7490), (sym_export_pragma, 7490), (sym_pou_pragma, 7194),
     (sym_direct_variable, 7675), (sym_deref_expression, 2373), (sym_variable, 7599),
     (sym_var_access, 2373), (sym_in_out_decls, 3160), (sym_var_decls, 3160),
     (sym_retain_var_decls, 3160), (sym_temp_var_decls, 3160), (sym_external_var_decls, 3160),
     (sym_global_var_decls, 2947), (sym_loc_partly_var_decl, 3160), (sym__fb_variables, 2343),
     (sym_fb_input_decls, 3160), (sym_fb_output_decls, 3160), (sym_no_retain_var_decls, 3160),
     (sym_fb_body, 8923), (sym_method_decl, 2549), (sym_prog_access_decls, 3043), (sym_SFC, 7970),
     (sym_SFC_network, 7612), (sym_initial_step, 7439), (sym_config_init, 3047),
     (sym_variable_access, 7530), (sym_func_call, 2961), (sym_stmt_list, 7970), (sym__stmt, 2024),
     (sym_assign, 3150), (sym_if_stmt, 3150), (sym_case_stmt, 3150), (sym_for_stmt, 3150),
     (sym_while_stmt, 3150), (sym_repeat_stmt, 3150), (sym_raise_stmt, 3150), (sym_try_stmt, 3150),
     (sym_ERR_clause_outside_try, 3150), (sym_begin_path_expression, 2943), (sym_invocation, 2934),
     (sym_any_invocation, 2935), (sym_this_invocation, 2641), (sym_super_invocation, 2641),
     (sym_super_body_invocation, 2935), (sym_path_expression, 2627), (sym_field_expression, 2373),
     (sym_index_expression, 2373), (sym_ladder_diagram, 7970), (sym_fb_diagram, 7970),
     (aux_sym_ERR_fb_variables_after_method_repeat1, 2343), (aux_sym_func_decl_repeat1, 7194),
     (aux_sym_fb_decl_repeat3, 2549), (aux_sym_SFC_repeat1, 7612),
     (aux_sym_stmt_list_repeat1, 2024), (aux_sym_ladder_diagram_repeat1, 8009),
     (aux_sym_fb_diagram_repeat1, 8013), (sym_identifier, 298),
     (aux_sym_ERR_unexpected_this_in_path_token1, 304),
     (aux_sym_ERR_unexpected_super_in_path_token1, 306), (sym_line_comment, 3),
     (anon_sym_LBRACE, 308), (aux_sym_test_pragma_token1, 9), (aux_sym_once_pragma_token1, 11),
     (aux_sym_must_call_pragma_token1, 13), (aux_sym_export_pragma_token1, 15),
     (anon_sym_SEMI, 310), (anon_sym_PERCENT, 312), (aux_sym_input_decls_token1, 314),
     (aux_sym_output_decls_token1, 316), (aux_sym_in_out_decls_token1, 318),
     (aux_sym_var_decls_token1, 320), (aux_sym_temp_var_decls_token1, 322),
     (aux_sym_external_var_decls_token1, 324), (aux_sym_global_var_decls_token1, 326),
     (aux_sym_fb_decl_token4, 1496), (aux_sym_method_decl_token1, 330),
     (aux_sym_prog_access_decls_token1, 332), (aux_sym_initial_step_token1, 334),
     (aux_sym_config_init_token1, 336), (aux_sym__stmt_token1, 340), (aux_sym__stmt_token2, 340),
     (aux_sym__stmt_token3, 340), (aux_sym_if_stmt_token1, 342), (aux_sym_case_stmt_token1, 344),
     (aux_sym_for_stmt_token1, 346), (aux_sym_while_stmt_token1, 348),
     (aux_sym_repeat_stmt_token1, 350), (aux_sym_raise_stmt_token1, 352),
     (aux_sym_try_stmt_token1, 354), (aux_sym_try_stmt_token2, 356),
     (aux_sym_catch_clause_token1, 356), (aux_sym_finally_clause_token1, 356), (sym_ld_rung, 358),
     (sym_fbd_network, 360), (sym_c_style_comment, 3), (sym_pascal_style_comment, 3),
     (sym_pragma, 3)]"

lemma ts_parse_row_583_scan: "row_scan tokens_63_2 0 ts_parse_row_583 = Some (Suc (Suc (Suc (Suc 0))))"
  unfolding ts_parse_row_583_def by simp

text \<open>Lines 121201 to 121313.\<close>

definition ts_parse_row_584 :: parse_row where
  "ts_parse_row_584 =
    [(sym_ERR_assign_func_call, 7530), (sym_ERR_unexpected_this_in_path, 2372),
     (sym_ERR_unexpected_super_in_path, 2372), (sym_ERR_fb_variables_after_method, 1520),
     (sym_ERR_var_access_not_allowed, 3160), (sym_ERR_var_config_not_allowed, 3160),
     (sym_ERR_var_global_not_allowed, 3160), (sym_ERR_method_decl_in_body, 3150),
     (sym_extern_pragma, 7490), (sym_wasm_pragma, 3150), (sym_warn_pragma, 7490),
     (sym_allow_pragma, 3140), (sym_test_pragma, 7490), (sym_once_pragma, 7490),
     (sym_must_call_pragma, 7490), (sym_export_pragma, 7490), (sym_pou_pragma, 7194),
     (sym_direct_variable, 7675), (sym_deref_expression, 2373), (sym_variable, 7599),
     (sym_var_access, 2373), (sym_in_out_decls, 3160), (sym_var_decls, 3160),
     (sym_retain_var_decls, 3160), (sym_temp_var_decls, 3160), (sym_external_var_decls, 3160),
     (sym_global_var_decls, 2947), (sym_loc_partly_var_decl, 3160), (sym__fb_variables, 2343),
     (sym_fb_input_decls, 3160), (sym_fb_output_decls, 3160), (sym_no_retain_var_decls, 3160),
     (sym_fb_body, 8951), (sym_method_decl, 2549), (sym_prog_access_decls, 3043), (sym_SFC, 7970),
     (sym_SFC_network, 7612), (sym_initial_step, 7439), (sym_config_init, 3047),
     (sym_variable_access, 7530), (sym_func_call, 2961), (sym_stmt_list, 7970), (sym__stmt, 2024),
     (sym_assign, 3150), (sym_if_stmt, 3150), (sym_case_stmt, 3150), (sym_for_stmt, 3150),
     (sym_while_stmt, 3150), (sym_repeat_stmt, 3150), (sym_raise_stmt, 3150), (sym_try_stmt, 3150),
     (sym_ERR_clause_outside_try, 3150), (sym_begin_path_expression, 2943), (sym_invocation, 2934),
     (sym_any_invocation, 2935), (sym_this_invocation, 2641), (sym_super_invocation, 2641),
     (sym_super_body_invocation, 2935), (sym_path_expression, 2627), (sym_field_expression, 2373),
     (sym_index_expression, 2373), (sym_ladder_diagram, 7970), (sym_fb_diagram, 7970),
     (aux_sym_ERR_fb_variables_after_method_repeat1, 2343), (aux_sym_func_decl_repeat1, 7194),
     (aux_sym_fb_decl_repeat3, 2549), (aux_sym_SFC_repeat1, 7612),
     (aux_sym_stmt_list_repeat1, 2024), (aux_sym_ladder_diagram_repeat1, 8009),
     (aux_sym_fb_diagram_repeat1, 8013), (sym_identifier, 298),
     (aux_sym_ERR_unexpected_this_in_path_token1, 304),
     (aux_sym_ERR_unexpected_super_in_path_token1, 306), (sym_line_comment, 3),
     (anon_sym_LBRACE, 308), (aux_sym_test_pragma_token1, 9), (aux_sym_once_pragma_token1, 11),
     (aux_sym_must_call_pragma_token1, 13), (aux_sym_export_pragma_token1, 15),
     (anon_sym_SEMI, 310), (anon_sym_PERCENT, 312), (aux_sym_input_decls_token1, 314),
     (aux_sym_output_decls_token1, 316), (aux_sym_in_out_decls_token1, 318),
     (aux_sym_var_decls_token1, 320), (aux_sym_temp_var_decls_token1, 322),
     (aux_sym_external_var_decls_token1, 324), (aux_sym_global_var_decls_token1, 326),
     (aux_sym_fb_decl_token4, 1498), (aux_sym_method_decl_token1, 330),
     (aux_sym_prog_access_decls_token1, 332), (aux_sym_initial_step_token1, 334),
     (aux_sym_config_init_token1, 336), (aux_sym__stmt_token1, 340), (aux_sym__stmt_token2, 340),
     (aux_sym__stmt_token3, 340), (aux_sym_if_stmt_token1, 342), (aux_sym_case_stmt_token1, 344),
     (aux_sym_for_stmt_token1, 346), (aux_sym_while_stmt_token1, 348),
     (aux_sym_repeat_stmt_token1, 350), (aux_sym_raise_stmt_token1, 352),
     (aux_sym_try_stmt_token1, 354), (aux_sym_try_stmt_token2, 356),
     (aux_sym_catch_clause_token1, 356), (aux_sym_finally_clause_token1, 356), (sym_ld_rung, 358),
     (sym_fbd_network, 360), (sym_c_style_comment, 3), (sym_pascal_style_comment, 3),
     (sym_pragma, 3)]"

lemma ts_parse_row_584_scan: "row_scan tokens_63_2 0 ts_parse_row_584 = Some (Suc (Suc (Suc (Suc 0))))"
  unfolding ts_parse_row_584_def by simp

text \<open>Lines 121314 to 121426.\<close>

definition ts_parse_row_585 :: parse_row where
  "ts_parse_row_585 =
    [(sym_ERR_assign_func_call, 7530), (sym_ERR_unexpected_this_in_path, 2372),
     (sym_ERR_unexpected_super_in_path, 2372), (sym_ERR_fb_variables_after_method, 1521),
     (sym_ERR_var_access_not_allowed, 3160), (sym_ERR_var_config_not_allowed, 3160),
     (sym_ERR_var_global_not_allowed, 3160), (sym_ERR_method_decl_in_body, 3150),
     (sym_extern_pragma, 7490), (sym_wasm_pragma, 3150), (sym_warn_pragma, 7490),
     (sym_allow_pragma, 3140), (sym_test_pragma, 7490), (sym_once_pragma, 7490),
     (sym_must_call_pragma, 7490), (sym_export_pragma, 7490), (sym_pou_pragma, 7194),
     (sym_direct_variable, 7675), (sym_deref_expression, 2373), (sym_variable, 7599),
     (sym_var_access, 2373), (sym_in_out_decls, 3160), (sym_var_decls, 3160),
     (sym_retain_var_decls, 3160), (sym_temp_var_decls, 3160), (sym_external_var_decls, 3160),
     (sym_global_var_decls, 2947), (sym_loc_partly_var_decl, 3160), (sym__fb_variables, 2343),
     (sym_fb_input_decls, 3160), (sym_fb_output_decls, 3160), (sym_no_retain_var_decls, 3160),
     (sym_fb_body, 8967), (sym_method_decl, 2549), (sym_prog_access_decls, 3043), (sym_SFC, 7970),
     (sym_SFC_network, 7612), (sym_initial_step, 7439), (sym_config_init, 3047),
     (sym_variable_access, 7530), (sym_func_call, 2961), (sym_stmt_list, 7970), (sym__stmt, 2024),
     (sym_assign, 3150), (sym_if_stmt, 3150), (sym_case_stmt, 3150), (sym_for_stmt, 3150),
     (sym_while_stmt, 3150), (sym_repeat_stmt, 3150), (sym_raise_stmt, 3150), (sym_try_stmt, 3150),
     (sym_ERR_clause_outside_try, 3150), (sym_begin_path_expression, 2943), (sym_invocation, 2934),
     (sym_any_invocation, 2935), (sym_this_invocation, 2641), (sym_super_invocation, 2641),
     (sym_super_body_invocation, 2935), (sym_path_expression, 2627), (sym_field_expression, 2373),
     (sym_index_expression, 2373), (sym_ladder_diagram, 7970), (sym_fb_diagram, 7970),
     (aux_sym_ERR_fb_variables_after_method_repeat1, 2343), (aux_sym_func_decl_repeat1, 7194),
     (aux_sym_fb_decl_repeat3, 2549), (aux_sym_SFC_repeat1, 7612),
     (aux_sym_stmt_list_repeat1, 2024), (aux_sym_ladder_diagram_repeat1, 8009),
     (aux_sym_fb_diagram_repeat1, 8013), (sym_identifier, 298),
     (aux_sym_ERR_unexpected_this_in_path_token1, 304),
     (aux_sym_ERR_unexpected_super_in_path_token1, 306), (sym_line_comment, 3),
     (anon_sym_LBRACE, 308), (aux_sym_test_pragma_token1, 9), (aux_sym_once_pragma_token1, 11),
     (aux_sym_must_call_pragma_token1, 13), (aux_sym_export_pragma_token1, 15),
     (anon_sym_SEMI, 310), (anon_sym_PERCENT, 312), (aux_sym_input_decls_token1, 314),
     (aux_sym_output_decls_token1, 316), (aux_sym_in_out_decls_token1, 318),
     (aux_sym_var_decls_token1, 320), (aux_sym_temp_var_decls_token1, 322),
     (aux_sym_external_var_decls_token1, 324), (aux_sym_global_var_decls_token1, 326),
     (aux_sym_fb_decl_token4, 1500), (aux_sym_method_decl_token1, 330),
     (aux_sym_prog_access_decls_token1, 332), (aux_sym_initial_step_token1, 334),
     (aux_sym_config_init_token1, 336), (aux_sym__stmt_token1, 340), (aux_sym__stmt_token2, 340),
     (aux_sym__stmt_token3, 340), (aux_sym_if_stmt_token1, 342), (aux_sym_case_stmt_token1, 344),
     (aux_sym_for_stmt_token1, 346), (aux_sym_while_stmt_token1, 348),
     (aux_sym_repeat_stmt_token1, 350), (aux_sym_raise_stmt_token1, 352),
     (aux_sym_try_stmt_token1, 354), (aux_sym_try_stmt_token2, 356),
     (aux_sym_catch_clause_token1, 356), (aux_sym_finally_clause_token1, 356), (sym_ld_rung, 358),
     (sym_fbd_network, 360), (sym_c_style_comment, 3), (sym_pascal_style_comment, 3),
     (sym_pragma, 3)]"

lemma ts_parse_row_585_scan: "row_scan tokens_63_2 0 ts_parse_row_585 = Some (Suc (Suc (Suc (Suc 0))))"
  unfolding ts_parse_row_585_def by simp

text \<open>Lines 121427 to 121539.\<close>

definition ts_parse_row_586 :: parse_row where
  "ts_parse_row_586 =
    [(sym_ERR_assign_func_call, 7530), (sym_ERR_unexpected_this_in_path, 2372),
     (sym_ERR_unexpected_super_in_path, 2372), (sym_ERR_fb_variables_after_method, 1522),
     (sym_ERR_var_access_not_allowed, 3160), (sym_ERR_var_config_not_allowed, 3160),
     (sym_ERR_var_global_not_allowed, 3160), (sym_ERR_method_decl_in_body, 3150),
     (sym_extern_pragma, 7490), (sym_wasm_pragma, 3150), (sym_warn_pragma, 7490),
     (sym_allow_pragma, 3140), (sym_test_pragma, 7490), (sym_once_pragma, 7490),
     (sym_must_call_pragma, 7490), (sym_export_pragma, 7490), (sym_pou_pragma, 7194),
     (sym_direct_variable, 7675), (sym_deref_expression, 2373), (sym_variable, 7599),
     (sym_var_access, 2373), (sym_in_out_decls, 3160), (sym_var_decls, 3160),
     (sym_retain_var_decls, 3160), (sym_temp_var_decls, 3160), (sym_external_var_decls, 3160),
     (sym_global_var_decls, 2947), (sym_loc_partly_var_decl, 3160), (sym__fb_variables, 2347),
     (sym_fb_input_decls, 3160), (sym_fb_output_decls, 3160), (sym_no_retain_var_decls, 3160),
     (sym_fb_body, 8975), (sym_method_decl, 709), (sym_prog_access_decls, 3043), (sym_SFC, 7970),
     (sym_SFC_network, 7612), (sym_initial_step, 7439), (sym_config_init, 3047),
     (sym_variable_access, 7530), (sym_func_call, 2961), (sym_stmt_list, 7970), (sym__stmt, 2024),
     (sym_assign, 3150), (sym_if_stmt, 3150), (sym_case_stmt, 3150), (sym_for_stmt, 3150),
     (sym_while_stmt, 3150), (sym_repeat_stmt, 3150), (sym_raise_stmt, 3150), (sym_try_stmt, 3150),
     (sym_ERR_clause_outside_try, 3150), (sym_begin_path_expression, 2943), (sym_invocation, 2934),
     (sym_any_invocation, 2935), (sym_this_invocation, 2641), (sym_super_invocation, 2641),
     (sym_super_body_invocation, 2935), (sym_path_expression, 2627), (sym_field_expression, 2373),
     (sym_index_expression, 2373), (sym_ladder_diagram, 7970), (sym_fb_diagram, 7970),
     (aux_sym_ERR_fb_variables_after_method_repeat1, 2347), (aux_sym_func_decl_repeat1, 7194),
     (aux_sym_fb_decl_repeat3, 709), (aux_sym_SFC_repeat1, 7612), (aux_sym_stmt_list_repeat1, 2024),
     (aux_sym_ladder_diagram_repeat1, 8009), (aux_sym_fb_diagram_repeat1, 8013),
     (sym_identifier, 298), (aux_sym_ERR_unexpected_this_in_path_token1, 304),
     (aux_sym_ERR_unexpected_super_in_path_token1, 306), (sym_line_comment, 3),
     (anon_sym_LBRACE, 308), (aux_sym_test_pragma_token1, 9), (aux_sym_once_pragma_token1, 11),
     (aux_sym_must_call_pragma_token1, 13), (aux_sym_export_pragma_token1, 15),
     (anon_sym_SEMI, 310), (anon_sym_PERCENT, 312), (aux_sym_input_decls_token1, 314),
     (aux_sym_output_decls_token1, 316), (aux_sym_in_out_decls_token1, 318),
     (aux_sym_var_decls_token1, 320), (aux_sym_temp_var_decls_token1, 322),
     (aux_sym_external_var_decls_token1, 324), (aux_sym_global_var_decls_token1, 326),
     (aux_sym_fb_decl_token4, 1502), (aux_sym_method_decl_token1, 330),
     (aux_sym_prog_access_decls_token1, 332), (aux_sym_initial_step_token1, 334),
     (aux_sym_config_init_token1, 336), (aux_sym__stmt_token1, 340), (aux_sym__stmt_token2, 340),
     (aux_sym__stmt_token3, 340), (aux_sym_if_stmt_token1, 342), (aux_sym_case_stmt_token1, 344),
     (aux_sym_for_stmt_token1, 346), (aux_sym_while_stmt_token1, 348),
     (aux_sym_repeat_stmt_token1, 350), (aux_sym_raise_stmt_token1, 352),
     (aux_sym_try_stmt_token1, 354), (aux_sym_try_stmt_token2, 356),
     (aux_sym_catch_clause_token1, 356), (aux_sym_finally_clause_token1, 356), (sym_ld_rung, 358),
     (sym_fbd_network, 360), (sym_c_style_comment, 3), (sym_pascal_style_comment, 3),
     (sym_pragma, 3)]"

lemma ts_parse_row_586_scan: "row_scan tokens_63_2 0 ts_parse_row_586 = Some (Suc (Suc (Suc (Suc 0))))"
  unfolding ts_parse_row_586_def by simp

text \<open>Lines 121540 to 121652.\<close>

definition ts_parse_row_587 :: parse_row where
  "ts_parse_row_587 =
    [(sym_ERR_assign_func_call, 7530), (sym_ERR_unexpected_this_in_path, 2372),
     (sym_ERR_unexpected_super_in_path, 2372), (sym_ERR_fb_variables_after_method, 1523),
     (sym_ERR_var_access_not_allowed, 3160), (sym_ERR_var_config_not_allowed, 3160),
     (sym_ERR_var_global_not_allowed, 3160), (sym_ERR_method_decl_in_body, 3150),
     (sym_extern_pragma, 7490), (sym_wasm_pragma, 3150), (sym_warn_pragma, 7490),
     (sym_allow_pragma, 3140), (sym_test_pragma, 7490), (sym_once_pragma, 7490),
     (sym_must_call_pragma, 7490), (sym_export_pragma, 7490), (sym_pou_pragma, 7194),
     (sym_direct_variable, 7675), (sym_deref_expression, 2373), (sym_variable, 7599),
     (sym_var_access, 2373), (sym_in_out_decls, 3160), (sym_var_decls, 3160),
     (sym_retain_var_decls, 3160), (sym_temp_var_decls, 3160), (sym_external_var_decls, 3160),
     (sym_global_var_decls, 2947), (sym_loc_partly_var_decl, 3160), (sym__fb_variables, 2343),
     (sym_fb_input_decls, 3160), (sym_fb_output_decls, 3160), (sym_no_retain_var_decls, 3160),
     (sym_fb_body, 8981), (sym_method_decl, 2549), (sym_prog_access_decls, 3043), (sym_SFC, 7970),
     (sym_SFC_network, 7612), (sym_initial_step, 7439), (sym_config_init, 3047),
     (sym_variable_access, 7530), (sym_func_call, 2961), (sym_stmt_list, 7970), (sym__stmt, 2024),
     (sym_assign, 3150), (sym_if_stmt, 3150), (sym_case_stmt, 3150), (sym_for_stmt, 3150),
     (sym_while_stmt, 3150), (sym_repeat_stmt, 3150), (sym_raise_stmt, 3150), (sym_try_stmt, 3150),
     (sym_ERR_clause_outside_try, 3150), (sym_begin_path_expression, 2943), (sym_invocation, 2934),
     (sym_any_invocation, 2935), (sym_this_invocation, 2641), (sym_super_invocation, 2641),
     (sym_super_body_invocation, 2935), (sym_path_expression, 2627), (sym_field_expression, 2373),
     (sym_index_expression, 2373), (sym_ladder_diagram, 7970), (sym_fb_diagram, 7970),
     (aux_sym_ERR_fb_variables_after_method_repeat1, 2343), (aux_sym_func_decl_repeat1, 7194),
     (aux_sym_fb_decl_repeat3, 2549), (aux_sym_SFC_repeat1, 7612),
     (aux_sym_stmt_list_repeat1, 2024), (aux_sym_ladder_diagram_repeat1, 8009),
     (aux_sym_fb_diagram_repeat1, 8013), (sym_identifier, 298),
     (aux_sym_ERR_unexpected_this_in_path_token1, 304),
     (aux_sym_ERR_unexpected_super_in_path_token1, 306), (sym_line_comment, 3),
     (anon_sym_LBRACE, 308), (aux_sym_test_pragma_token1, 9), (aux_sym_once_pragma_token1, 11),
     (aux_sym_must_call_pragma_token1, 13), (aux_sym_export_pragma_token1, 15),
     (anon_sym_SEMI, 310), (anon_sym_PERCENT, 312), (aux_sym_input_decls_token1, 314),
     (aux_sym_output_decls_token1, 316), (aux_sym_in_out_decls_token1, 318),
     (aux_sym_var_decls_token1, 320), (aux_sym_temp_var_decls_token1, 322),
     (aux_sym_external_var_decls_token1, 324), (aux_sym_global_var_decls_token1, 326),
     (aux_sym_fb_decl_token4, 1504), (aux_sym_method_decl_token1, 330),
     (aux_sym_prog_access_decls_token1, 332), (aux_sym_initial_step_token1, 334),
     (aux_sym_config_init_token1, 336), (aux_sym__stmt_token1, 340), (aux_sym__stmt_token2, 340),
     (aux_sym__stmt_token3, 340), (aux_sym_if_stmt_token1, 342), (aux_sym_case_stmt_token1, 344),
     (aux_sym_for_stmt_token1, 346), (aux_sym_while_stmt_token1, 348),
     (aux_sym_repeat_stmt_token1, 350), (aux_sym_raise_stmt_token1, 352),
     (aux_sym_try_stmt_token1, 354), (aux_sym_try_stmt_token2, 356),
     (aux_sym_catch_clause_token1, 356), (aux_sym_finally_clause_token1, 356), (sym_ld_rung, 358),
     (sym_fbd_network, 360), (sym_c_style_comment, 3), (sym_pascal_style_comment, 3),
     (sym_pragma, 3)]"

lemma ts_parse_row_587_scan: "row_scan tokens_63_2 0 ts_parse_row_587 = Some (Suc (Suc (Suc (Suc 0))))"
  unfolding ts_parse_row_587_def by simp

text \<open>Lines 121653 to 121765.\<close>

definition ts_parse_row_588 :: parse_row where
  "ts_parse_row_588 =
    [(sym_ERR_assign_func_call, 7530), (sym_ERR_unexpected_this_in_path, 2372),
     (sym_ERR_unexpected_super_in_path, 2372), (sym_ERR_fb_variables_after_method, 1524),
     (sym_ERR_var_access_not_allowed, 3160), (sym_ERR_var_config_not_allowed, 3160),
     (sym_ERR_var_global_not_allowed, 3160), (sym_ERR_method_decl_in_body, 3150),
     (sym_extern_pragma, 7490), (sym_wasm_pragma, 3150), (sym_warn_pragma, 7490),
     (sym_allow_pragma, 3140), (sym_test_pragma, 7490), (sym_once_pragma, 7490),
     (sym_must_call_pragma, 7490), (sym_export_pragma, 7490), (sym_pou_pragma, 7194),
     (sym_direct_variable, 7675), (sym_deref_expression, 2373), (sym_variable, 7599),
     (sym_var_access, 2373), (sym_in_out_decls, 3160), (sym_var_decls, 3160),
     (sym_retain_var_decls, 3160), (sym_temp_var_decls, 3160), (sym_external_var_decls, 3160),
     (sym_global_var_decls, 2947), (sym_loc_partly_var_decl, 3160), (sym__fb_variables, 2347),
     (sym_fb_input_decls, 3160), (sym_fb_output_decls, 3160), (sym_no_retain_var_decls, 3160),
     (sym_fb_body, 8987), (sym_method_decl, 710), (sym_prog_access_decls, 3043), (sym_SFC, 7970),
     (sym_SFC_network, 7612), (sym_initial_step, 7439), (sym_config_init, 3047),
     (sym_variable_access, 7530), (sym_func_call, 2961), (sym_stmt_list, 7970), (sym__stmt, 2024),
     (sym_assign, 3150), (sym_if_stmt, 3150), (sym_case_stmt, 3150), (sym_for_stmt, 3150),
     (sym_while_stmt, 3150), (sym_repeat_stmt, 3150), (sym_raise_stmt, 3150), (sym_try_stmt, 3150),
     (sym_ERR_clause_outside_try, 3150), (sym_begin_path_expression, 2943), (sym_invocation, 2934),
     (sym_any_invocation, 2935), (sym_this_invocation, 2641), (sym_super_invocation, 2641),
     (sym_super_body_invocation, 2935), (sym_path_expression, 2627), (sym_field_expression, 2373),
     (sym_index_expression, 2373), (sym_ladder_diagram, 7970), (sym_fb_diagram, 7970),
     (aux_sym_ERR_fb_variables_after_method_repeat1, 2347), (aux_sym_func_decl_repeat1, 7194),
     (aux_sym_fb_decl_repeat3, 710), (aux_sym_SFC_repeat1, 7612), (aux_sym_stmt_list_repeat1, 2024),
     (aux_sym_ladder_diagram_repeat1, 8009), (aux_sym_fb_diagram_repeat1, 8013),
     (sym_identifier, 298), (aux_sym_ERR_unexpected_this_in_path_token1, 304),
     (aux_sym_ERR_unexpected_super_in_path_token1, 306), (sym_line_comment, 3),
     (anon_sym_LBRACE, 308), (aux_sym_test_pragma_token1, 9), (aux_sym_once_pragma_token1, 11),
     (aux_sym_must_call_pragma_token1, 13), (aux_sym_export_pragma_token1, 15),
     (anon_sym_SEMI, 310), (anon_sym_PERCENT, 312), (aux_sym_input_decls_token1, 314),
     (aux_sym_output_decls_token1, 316), (aux_sym_in_out_decls_token1, 318),
     (aux_sym_var_decls_token1, 320), (aux_sym_temp_var_decls_token1, 322),
     (aux_sym_external_var_decls_token1, 324), (aux_sym_global_var_decls_token1, 326),
     (aux_sym_fb_decl_token4, 1506), (aux_sym_method_decl_token1, 330),
     (aux_sym_prog_access_decls_token1, 332), (aux_sym_initial_step_token1, 334),
     (aux_sym_config_init_token1, 336), (aux_sym__stmt_token1, 340), (aux_sym__stmt_token2, 340),
     (aux_sym__stmt_token3, 340), (aux_sym_if_stmt_token1, 342), (aux_sym_case_stmt_token1, 344),
     (aux_sym_for_stmt_token1, 346), (aux_sym_while_stmt_token1, 348),
     (aux_sym_repeat_stmt_token1, 350), (aux_sym_raise_stmt_token1, 352),
     (aux_sym_try_stmt_token1, 354), (aux_sym_try_stmt_token2, 356),
     (aux_sym_catch_clause_token1, 356), (aux_sym_finally_clause_token1, 356), (sym_ld_rung, 358),
     (sym_fbd_network, 360), (sym_c_style_comment, 3), (sym_pascal_style_comment, 3),
     (sym_pragma, 3)]"

lemma ts_parse_row_588_scan: "row_scan tokens_63_2 0 ts_parse_row_588 = Some (Suc (Suc (Suc (Suc 0))))"
  unfolding ts_parse_row_588_def by simp

text \<open>Lines 121766 to 121878.\<close>

definition ts_parse_row_589 :: parse_row where
  "ts_parse_row_589 =
    [(sym_ERR_assign_func_call, 7530), (sym_ERR_unexpected_this_in_path, 2372),
     (sym_ERR_unexpected_super_in_path, 2372), (sym_ERR_fb_variables_after_method, 1703),
     (sym_ERR_var_access_not_allowed, 3160), (sym_ERR_var_config_not_allowed, 3160),
     (sym_ERR_var_global_not_allowed, 3160), (sym_ERR_method_decl_in_body, 3150),
     (sym_extern_pragma, 7490), (sym_wasm_pragma, 3150), (sym_warn_pragma, 7490),
     (sym_allow_pragma, 3140), (sym_test_pragma, 7490), (sym_once_pragma, 7490),
     (sym_must_call_pragma, 7490), (sym_export_pragma, 7490), (sym_pou_pragma, 7194),
     (sym_direct_variable, 7675), (sym_deref_expression, 2373), (sym_variable, 7599),
     (sym_var_access, 2373), (sym_in_out_decls, 3160), (sym_var_decls, 3160),
     (sym_retain_var_decls, 3160), (sym_temp_var_decls, 3160), (sym_external_var_decls, 3160),
     (sym_global_var_decls, 2947), (sym_loc_partly_var_decl, 3160), (sym__fb_variables, 2343),
     (sym_fb_input_decls, 3160), (sym_fb_output_decls, 3160), (sym_no_retain_var_decls, 3160),
     (sym_fb_body, 9092), (sym_method_decl, 2549), (sym_prog_access_decls, 3043), (sym_SFC, 7970),
     (sym_SFC_network, 7612), (sym_initial_step, 7439), (sym_config_init, 3047),
     (sym_variable_access, 7530), (sym_func_call, 2961), (sym_stmt_list, 7970), (sym__stmt, 2024),
     (sym_assign, 3150), (sym_if_stmt, 3150), (sym_case_stmt, 3150), (sym_for_stmt, 3150),
     (sym_while_stmt, 3150), (sym_repeat_stmt, 3150), (sym_raise_stmt, 3150), (sym_try_stmt, 3150),
     (sym_ERR_clause_outside_try, 3150), (sym_begin_path_expression, 2943), (sym_invocation, 2934),
     (sym_any_invocation, 2935), (sym_this_invocation, 2641), (sym_super_invocation, 2641),
     (sym_super_body_invocation, 2935), (sym_path_expression, 2627), (sym_field_expression, 2373),
     (sym_index_expression, 2373), (sym_ladder_diagram, 7970), (sym_fb_diagram, 7970),
     (aux_sym_ERR_fb_variables_after_method_repeat1, 2343), (aux_sym_func_decl_repeat1, 7194),
     (aux_sym_fb_decl_repeat3, 2549), (aux_sym_SFC_repeat1, 7612),
     (aux_sym_stmt_list_repeat1, 2024), (aux_sym_ladder_diagram_repeat1, 8009),
     (aux_sym_fb_diagram_repeat1, 8013), (sym_identifier, 298),
     (aux_sym_ERR_unexpected_this_in_path_token1, 304),
     (aux_sym_ERR_unexpected_super_in_path_token1, 306), (sym_line_comment, 3),
     (anon_sym_LBRACE, 308), (aux_sym_test_pragma_token1, 9), (aux_sym_once_pragma_token1, 11),
     (aux_sym_must_call_pragma_token1, 13), (aux_sym_export_pragma_token1, 15),
     (anon_sym_SEMI, 310), (anon_sym_PERCENT, 312), (aux_sym_input_decls_token1, 314),
     (aux_sym_output_decls_token1, 316), (aux_sym_in_out_decls_token1, 318),
     (aux_sym_var_decls_token1, 320), (aux_sym_temp_var_decls_token1, 322),
     (aux_sym_external_var_decls_token1, 324), (aux_sym_global_var_decls_token1, 326),
     (aux_sym_fb_decl_token4, 1508), (aux_sym_method_decl_token1, 330),
     (aux_sym_prog_access_decls_token1, 332), (aux_sym_initial_step_token1, 334),
     (aux_sym_config_init_token1, 336), (aux_sym__stmt_token1, 340), (aux_sym__stmt_token2, 340),
     (aux_sym__stmt_token3, 340), (aux_sym_if_stmt_token1, 342), (aux_sym_case_stmt_token1, 344),
     (aux_sym_for_stmt_token1, 346), (aux_sym_while_stmt_token1, 348),
     (aux_sym_repeat_stmt_token1, 350), (aux_sym_raise_stmt_token1, 352),
     (aux_sym_try_stmt_token1, 354), (aux_sym_try_stmt_token2, 356),
     (aux_sym_catch_clause_token1, 356), (aux_sym_finally_clause_token1, 356), (sym_ld_rung, 358),
     (sym_fbd_network, 360), (sym_c_style_comment, 3), (sym_pascal_style_comment, 3),
     (sym_pragma, 3)]"

lemma ts_parse_row_589_scan: "row_scan tokens_63_2 0 ts_parse_row_589 = Some (Suc (Suc (Suc (Suc 0))))"
  unfolding ts_parse_row_589_def by simp

text \<open>Lines 121879 to 121991.\<close>

definition ts_parse_row_590 :: parse_row where
  "ts_parse_row_590 =
    [(sym_ERR_assign_func_call, 7530), (sym_ERR_unexpected_this_in_path, 2372),
     (sym_ERR_unexpected_super_in_path, 2372), (sym_ERR_fb_variables_after_method, 1527),
     (sym_ERR_var_access_not_allowed, 3160), (sym_ERR_var_config_not_allowed, 3160),
     (sym_ERR_var_global_not_allowed, 3160), (sym_ERR_method_decl_in_body, 3150),
     (sym_extern_pragma, 7490), (sym_wasm_pragma, 3150), (sym_warn_pragma, 7490),
     (sym_allow_pragma, 3140), (sym_test_pragma, 7490), (sym_once_pragma, 7490),
     (sym_must_call_pragma, 7490), (sym_export_pragma, 7490), (sym_pou_pragma, 7194),
     (sym_direct_variable, 7675), (sym_deref_expression, 2373), (sym_variable, 7599),
     (sym_var_access, 2373), (sym_in_out_decls, 3160), (sym_var_decls, 3160),
     (sym_retain_var_decls, 3160), (sym_temp_var_decls, 3160), (sym_external_var_decls, 3160),
     (sym_global_var_decls, 2947), (sym_loc_partly_var_decl, 3160), (sym__fb_variables, 2343),
     (sym_fb_input_decls, 3160), (sym_fb_output_decls, 3160), (sym_no_retain_var_decls, 3160),
     (sym_fb_body, 8997), (sym_method_decl, 2549), (sym_prog_access_decls, 3043), (sym_SFC, 7970),
     (sym_SFC_network, 7612), (sym_initial_step, 7439), (sym_config_init, 3047),
     (sym_variable_access, 7530), (sym_func_call, 2961), (sym_stmt_list, 7970), (sym__stmt, 2024),
     (sym_assign, 3150), (sym_if_stmt, 3150), (sym_case_stmt, 3150), (sym_for_stmt, 3150),
     (sym_while_stmt, 3150), (sym_repeat_stmt, 3150), (sym_raise_stmt, 3150), (sym_try_stmt, 3150),
     (sym_ERR_clause_outside_try, 3150), (sym_begin_path_expression, 2943), (sym_invocation, 2934),
     (sym_any_invocation, 2935), (sym_this_invocation, 2641), (sym_super_invocation, 2641),
     (sym_super_body_invocation, 2935), (sym_path_expression, 2627), (sym_field_expression, 2373),
     (sym_index_expression, 2373), (sym_ladder_diagram, 7970), (sym_fb_diagram, 7970),
     (aux_sym_ERR_fb_variables_after_method_repeat1, 2343), (aux_sym_func_decl_repeat1, 7194),
     (aux_sym_fb_decl_repeat3, 2549), (aux_sym_SFC_repeat1, 7612),
     (aux_sym_stmt_list_repeat1, 2024), (aux_sym_ladder_diagram_repeat1, 8009),
     (aux_sym_fb_diagram_repeat1, 8013), (sym_identifier, 298),
     (aux_sym_ERR_unexpected_this_in_path_token1, 304),
     (aux_sym_ERR_unexpected_super_in_path_token1, 306), (sym_line_comment, 3),
     (anon_sym_LBRACE, 308), (aux_sym_test_pragma_token1, 9), (aux_sym_once_pragma_token1, 11),
     (aux_sym_must_call_pragma_token1, 13), (aux_sym_export_pragma_token1, 15),
     (anon_sym_SEMI, 310), (anon_sym_PERCENT, 312), (aux_sym_input_decls_token1, 314),
     (aux_sym_output_decls_token1, 316), (aux_sym_in_out_decls_token1, 318),
     (aux_sym_var_decls_token1, 320), (aux_sym_temp_var_decls_token1, 322),
     (aux_sym_external_var_decls_token1, 324), (aux_sym_global_var_decls_token1, 326),
     (aux_sym_fb_decl_token4, 1510), (aux_sym_method_decl_token1, 330),
     (aux_sym_prog_access_decls_token1, 332), (aux_sym_initial_step_token1, 334),
     (aux_sym_config_init_token1, 336), (aux_sym__stmt_token1, 340), (aux_sym__stmt_token2, 340),
     (aux_sym__stmt_token3, 340), (aux_sym_if_stmt_token1, 342), (aux_sym_case_stmt_token1, 344),
     (aux_sym_for_stmt_token1, 346), (aux_sym_while_stmt_token1, 348),
     (aux_sym_repeat_stmt_token1, 350), (aux_sym_raise_stmt_token1, 352),
     (aux_sym_try_stmt_token1, 354), (aux_sym_try_stmt_token2, 356),
     (aux_sym_catch_clause_token1, 356), (aux_sym_finally_clause_token1, 356), (sym_ld_rung, 358),
     (sym_fbd_network, 360), (sym_c_style_comment, 3), (sym_pascal_style_comment, 3),
     (sym_pragma, 3)]"

lemma ts_parse_row_590_scan: "row_scan tokens_63_2 0 ts_parse_row_590 = Some (Suc (Suc (Suc (Suc 0))))"
  unfolding ts_parse_row_590_def by simp

text \<open>Lines 121992 to 122104.\<close>

definition ts_parse_row_591 :: parse_row where
  "ts_parse_row_591 =
    [(sym_ERR_assign_func_call, 7530), (sym_ERR_unexpected_this_in_path, 2372),
     (sym_ERR_unexpected_super_in_path, 2372), (sym_ERR_fb_variables_after_method, 1528),
     (sym_ERR_var_access_not_allowed, 3160), (sym_ERR_var_config_not_allowed, 3160),
     (sym_ERR_var_global_not_allowed, 3160), (sym_ERR_method_decl_in_body, 3150),
     (sym_extern_pragma, 7490), (sym_wasm_pragma, 3150), (sym_warn_pragma, 7490),
     (sym_allow_pragma, 3140), (sym_test_pragma, 7490), (sym_once_pragma, 7490),
     (sym_must_call_pragma, 7490), (sym_export_pragma, 7490), (sym_pou_pragma, 7194),
     (sym_direct_variable, 7675), (sym_deref_expression, 2373), (sym_variable, 7599),
     (sym_var_access, 2373), (sym_in_out_decls, 3160), (sym_var_decls, 3160),
     (sym_retain_var_decls, 3160), (sym_temp_var_decls, 3160), (sym_external_var_decls, 3160),
     (sym_global_var_decls, 2947), (sym_loc_partly_var_decl, 3160), (sym__fb_variables, 2347),
     (sym_fb_input_decls, 3160), (sym_fb_output_decls, 3160), (sym_no_retain_var_decls, 3160),
     (sym_fb_body, 9015), (sym_method_decl, 713), (sym_prog_access_decls, 3043), (sym_SFC, 7970),
     (sym_SFC_network, 7612), (sym_initial_step, 7439), (sym_config_init, 3047),
     (sym_variable_access, 7530), (sym_func_call, 2961), (sym_stmt_list, 7970), (sym__stmt, 2024),
     (sym_assign, 3150), (sym_if_stmt, 3150), (sym_case_stmt, 3150), (sym_for_stmt, 3150),
     (sym_while_stmt, 3150), (sym_repeat_stmt, 3150), (sym_raise_stmt, 3150), (sym_try_stmt, 3150),
     (sym_ERR_clause_outside_try, 3150), (sym_begin_path_expression, 2943), (sym_invocation, 2934),
     (sym_any_invocation, 2935), (sym_this_invocation, 2641), (sym_super_invocation, 2641),
     (sym_super_body_invocation, 2935), (sym_path_expression, 2627), (sym_field_expression, 2373),
     (sym_index_expression, 2373), (sym_ladder_diagram, 7970), (sym_fb_diagram, 7970),
     (aux_sym_ERR_fb_variables_after_method_repeat1, 2347), (aux_sym_func_decl_repeat1, 7194),
     (aux_sym_fb_decl_repeat3, 713), (aux_sym_SFC_repeat1, 7612), (aux_sym_stmt_list_repeat1, 2024),
     (aux_sym_ladder_diagram_repeat1, 8009), (aux_sym_fb_diagram_repeat1, 8013),
     (sym_identifier, 298), (aux_sym_ERR_unexpected_this_in_path_token1, 304),
     (aux_sym_ERR_unexpected_super_in_path_token1, 306), (sym_line_comment, 3),
     (anon_sym_LBRACE, 308), (aux_sym_test_pragma_token1, 9), (aux_sym_once_pragma_token1, 11),
     (aux_sym_must_call_pragma_token1, 13), (aux_sym_export_pragma_token1, 15),
     (anon_sym_SEMI, 310), (anon_sym_PERCENT, 312), (aux_sym_input_decls_token1, 314),
     (aux_sym_output_decls_token1, 316), (aux_sym_in_out_decls_token1, 318),
     (aux_sym_var_decls_token1, 320), (aux_sym_temp_var_decls_token1, 322),
     (aux_sym_external_var_decls_token1, 324), (aux_sym_global_var_decls_token1, 326),
     (aux_sym_fb_decl_token4, 1512), (aux_sym_method_decl_token1, 330),
     (aux_sym_prog_access_decls_token1, 332), (aux_sym_initial_step_token1, 334),
     (aux_sym_config_init_token1, 336), (aux_sym__stmt_token1, 340), (aux_sym__stmt_token2, 340),
     (aux_sym__stmt_token3, 340), (aux_sym_if_stmt_token1, 342), (aux_sym_case_stmt_token1, 344),
     (aux_sym_for_stmt_token1, 346), (aux_sym_while_stmt_token1, 348),
     (aux_sym_repeat_stmt_token1, 350), (aux_sym_raise_stmt_token1, 352),
     (aux_sym_try_stmt_token1, 354), (aux_sym_try_stmt_token2, 356),
     (aux_sym_catch_clause_token1, 356), (aux_sym_finally_clause_token1, 356), (sym_ld_rung, 358),
     (sym_fbd_network, 360), (sym_c_style_comment, 3), (sym_pascal_style_comment, 3),
     (sym_pragma, 3)]"

lemma ts_parse_row_591_scan: "row_scan tokens_63_2 0 ts_parse_row_591 = Some (Suc (Suc (Suc (Suc 0))))"
  unfolding ts_parse_row_591_def by simp

text \<open>Lines 122105 to 122217.\<close>

definition ts_parse_row_592 :: parse_row where
  "ts_parse_row_592 =
    [(sym_ERR_assign_func_call, 7530), (sym_ERR_unexpected_this_in_path, 2372),
     (sym_ERR_unexpected_super_in_path, 2372), (sym_ERR_fb_variables_after_method, 1706),
     (sym_ERR_var_access_not_allowed, 3160), (sym_ERR_var_config_not_allowed, 3160),
     (sym_ERR_var_global_not_allowed, 3160), (sym_ERR_method_decl_in_body, 3150),
     (sym_extern_pragma, 7490), (sym_wasm_pragma, 3150), (sym_warn_pragma, 7490),
     (sym_allow_pragma, 3140), (sym_test_pragma, 7490), (sym_once_pragma, 7490),
     (sym_must_call_pragma, 7490), (sym_export_pragma, 7490), (sym_pou_pragma, 7194),
     (sym_direct_variable, 7675), (sym_deref_expression, 2373), (sym_variable, 7599),
     (sym_var_access, 2373), (sym_in_out_decls, 3160), (sym_var_decls, 3160),
     (sym_retain_var_decls, 3160), (sym_temp_var_decls, 3160), (sym_external_var_decls, 3160),
     (sym_global_var_decls, 2947), (sym_loc_partly_var_decl, 3160), (sym__fb_variables, 2343),
     (sym_fb_input_decls, 3160), (sym_fb_output_decls, 3160), (sym_no_retain_var_decls, 3160),
     (sym_fb_body, 9148), (sym_method_decl, 2549), (sym_prog_access_decls, 3043), (sym_SFC, 7970),
     (sym_SFC_network, 7612), (sym_initial_step, 7439), (sym_config_init, 3047),
     (sym_variable_access, 7530), (sym_func_call, 2961), (sym_stmt_list, 7970), (sym__stmt, 2024),
     (sym_assign, 3150), (sym_if_stmt, 3150), (sym_case_stmt, 3150), (sym_for_stmt, 3150),
     (sym_while_stmt, 3150), (sym_repeat_stmt, 3150), (sym_raise_stmt, 3150), (sym_try_stmt, 3150),
     (sym_ERR_clause_outside_try, 3150), (sym_begin_path_expression, 2943), (sym_invocation, 2934),
     (sym_any_invocation, 2935), (sym_this_invocation, 2641), (sym_super_invocation, 2641),
     (sym_super_body_invocation, 2935), (sym_path_expression, 2627), (sym_field_expression, 2373),
     (sym_index_expression, 2373), (sym_ladder_diagram, 7970), (sym_fb_diagram, 7970),
     (aux_sym_ERR_fb_variables_after_method_repeat1, 2343), (aux_sym_func_decl_repeat1, 7194),
     (aux_sym_fb_decl_repeat3, 2549), (aux_sym_SFC_repeat1, 7612),
     (aux_sym_stmt_list_repeat1, 2024), (aux_sym_ladder_diagram_repeat1, 8009),
     (aux_sym_fb_diagram_repeat1, 8013), (sym_identifier, 298),
     (aux_sym_ERR_unexpected_this_in_path_token1, 304),
     (aux_sym_ERR_unexpected_super_in_path_token1, 306), (sym_line_comment, 3),
     (anon_sym_LBRACE, 308), (aux_sym_test_pragma_token1, 9), (aux_sym_once_pragma_token1, 11),
     (aux_sym_must_call_pragma_token1, 13), (aux_sym_export_pragma_token1, 15),
     (anon_sym_SEMI, 310), (anon_sym_PERCENT, 312), (aux_sym_input_decls_token1, 314),
     (aux_sym_output_decls_token1, 316), (aux_sym_in_out_decls_token1, 318),
     (aux_sym_var_decls_token1, 320), (aux_sym_temp_var_decls_token1, 322),
     (aux_sym_external_var_decls_token1, 324), (aux_sym_global_var_decls_token1, 326),
     (aux_sym_fb_decl_token4, 1514), (aux_sym_method_decl_token1, 330),
     (aux_sym_prog_access_decls_token1, 332), (aux_sym_initial_step_token1, 334),
     (aux_sym_config_init_token1, 336), (aux_sym__stmt_token1, 340), (aux_sym__stmt_token2, 340),
     (aux_sym__stmt_token3, 340), (aux_sym_if_stmt_token1, 342), (aux_sym_case_stmt_token1, 344),
     (aux_sym_for_stmt_token1, 346), (aux_sym_while_stmt_token1, 348),
     (aux_sym_repeat_stmt_token1, 350), (aux_sym_raise_stmt_token1, 352),
     (aux_sym_try_stmt_token1, 354), (aux_sym_try_stmt_token2, 356),
     (aux_sym_catch_clause_token1, 356), (aux_sym_finally_clause_token1, 356), (sym_ld_rung, 358),
     (sym_fbd_network, 360), (sym_c_style_comment, 3), (sym_pascal_style_comment, 3),
     (sym_pragma, 3)]"

lemma ts_parse_row_592_scan: "row_scan tokens_63_2 0 ts_parse_row_592 = Some (Suc (Suc (Suc (Suc 0))))"
  unfolding ts_parse_row_592_def by simp

text \<open>Lines 122218 to 122330.\<close>

definition ts_parse_row_593 :: parse_row where
  "ts_parse_row_593 =
    [(sym_ERR_assign_func_call, 7530), (sym_ERR_unexpected_this_in_path, 2372),
     (sym_ERR_unexpected_super_in_path, 2372), (sym_ERR_fb_variables_after_method, 1708),
     (sym_ERR_var_access_not_allowed, 3160), (sym_ERR_var_config_not_allowed, 3160),
     (sym_ERR_var_global_not_allowed, 3160), (sym_ERR_method_decl_in_body, 3150),
     (sym_extern_pragma, 7490), (sym_wasm_pragma, 3150), (sym_warn_pragma, 7490),
     (sym_allow_pragma, 3140), (sym_test_pragma, 7490), (sym_once_pragma, 7490),
     (sym_must_call_pragma, 7490), (sym_export_pragma, 7490), (sym_pou_pragma, 7194),
     (sym_direct_variable, 7675), (sym_deref_expression, 2373), (sym_variable, 7599),
     (sym_var_access, 2373), (sym_in_out_decls, 3160), (sym_var_decls, 3160),
     (sym_retain_var_decls, 3160), (sym_temp_var_decls, 3160), (sym_external_var_decls, 3160),
     (sym_global_var_decls, 2947), (sym_loc_partly_var_decl, 3160), (sym__fb_variables, 2343),
     (sym_fb_input_decls, 3160), (sym_fb_output_decls, 3160), (sym_no_retain_var_decls, 3160),
     (sym_fb_body, 9167), (sym_method_decl, 2549), (sym_prog_access_decls, 3043), (sym_SFC, 7970),
     (sym_SFC_network, 7612), (sym_initial_step, 7439), (sym_config_init, 3047),
     (sym_variable_access, 7530), (sym_func_call, 2961), (sym_stmt_list, 7970), (sym__stmt, 2024),
     (sym_assign, 3150), (sym_if_stmt, 3150), (sym_case_stmt, 3150), (sym_for_stmt, 3150),
     (sym_while_stmt, 3150), (sym_repeat_stmt, 3150), (sym_raise_stmt, 3150), (sym_try_stmt, 3150),
     (sym_ERR_clause_outside_try, 3150), (sym_begin_path_expression, 2943), (sym_invocation, 2934),
     (sym_any_invocation, 2935), (sym_this_invocation, 2641), (sym_super_invocation, 2641),
     (sym_super_body_invocation, 2935), (sym_path_expression, 2627), (sym_field_expression, 2373),
     (sym_index_expression, 2373), (sym_ladder_diagram, 7970), (sym_fb_diagram, 7970),
     (aux_sym_ERR_fb_variables_after_method_repeat1, 2343), (aux_sym_func_decl_repeat1, 7194),
     (aux_sym_fb_decl_repeat3, 2549), (aux_sym_SFC_repeat1, 7612),
     (aux_sym_stmt_list_repeat1, 2024), (aux_sym_ladder_diagram_repeat1, 8009),
     (aux_sym_fb_diagram_repeat1, 8013), (sym_identifier, 298),
     (aux_sym_ERR_unexpected_this_in_path_token1, 304),
     (aux_sym_ERR_unexpected_super_in_path_token1, 306), (sym_line_comment, 3),
     (anon_sym_LBRACE, 308), (aux_sym_test_pragma_token1, 9), (aux_sym_once_pragma_token1, 11),
     (aux_sym_must_call_pragma_token1, 13), (aux_sym_export_pragma_token1, 15),
     (anon_sym_SEMI, 310), (anon_sym_PERCENT, 312), (aux_sym_input_decls_token1, 314),
     (aux_sym_output_decls_token1, 316), (aux_sym_in_out_decls_token1, 318),
     (aux_sym_var_decls_token1, 320), (aux_sym_temp_var_decls_token1, 322),
     (aux_sym_external_var_decls_token1, 324), (aux_sym_global_var_decls_token1, 326),
     (aux_sym_fb_decl_token4, 1516), (aux_sym_method_decl_token1, 330),
     (aux_sym_prog_access_decls_token1, 332), (aux_sym_initial_step_token1, 334),
     (aux_sym_config_init_token1, 336), (aux_sym__stmt_token1, 340), (aux_sym__stmt_token2, 340),
     (aux_sym__stmt_token3, 340), (aux_sym_if_stmt_token1, 342), (aux_sym_case_stmt_token1, 344),
     (aux_sym_for_stmt_token1, 346), (aux_sym_while_stmt_token1, 348),
     (aux_sym_repeat_stmt_token1, 350), (aux_sym_raise_stmt_token1, 352),
     (aux_sym_try_stmt_token1, 354), (aux_sym_try_stmt_token2, 356),
     (aux_sym_catch_clause_token1, 356), (aux_sym_finally_clause_token1, 356), (sym_ld_rung, 358),
     (sym_fbd_network, 360), (sym_c_style_comment, 3), (sym_pascal_style_comment, 3),
     (sym_pragma, 3)]"

lemma ts_parse_row_593_scan: "row_scan tokens_63_2 0 ts_parse_row_593 = Some (Suc (Suc (Suc (Suc 0))))"
  unfolding ts_parse_row_593_def by simp

text \<open>Lines 122331 to 122443.\<close>

definition ts_parse_row_594 :: parse_row where
  "ts_parse_row_594 =
    [(sym_ERR_assign_func_call, 7530), (sym_ERR_unexpected_this_in_path, 2372),
     (sym_ERR_unexpected_super_in_path, 2372), (sym_ERR_fb_variables_after_method, 1532),
     (sym_ERR_var_access_not_allowed, 3160), (sym_ERR_var_config_not_allowed, 3160),
     (sym_ERR_var_global_not_allowed, 3160), (sym_ERR_method_decl_in_body, 3150),
     (sym_extern_pragma, 7490), (sym_wasm_pragma, 3150), (sym_warn_pragma, 7490),
     (sym_allow_pragma, 3140), (sym_test_pragma, 7490), (sym_once_pragma, 7490),
     (sym_must_call_pragma, 7490), (sym_export_pragma, 7490), (sym_pou_pragma, 7194),
     (sym_direct_variable, 7675), (sym_deref_expression, 2373), (sym_variable, 7599),
     (sym_var_access, 2373), (sym_in_out_decls, 3160), (sym_var_decls, 3160),
     (sym_retain_var_decls, 3160), (sym_temp_var_decls, 3160), (sym_external_var_decls, 3160),
     (sym_global_var_decls, 2947), (sym_loc_partly_var_decl, 3160), (sym__fb_variables, 2343),
     (sym_fb_input_decls, 3160), (sym_fb_output_decls, 3160), (sym_no_retain_var_decls, 3160),
     (sym_fb_body, 9032), (sym_method_decl, 2549), (sym_prog_access_decls, 3043), (sym_SFC, 7970),
     (sym_SFC_network, 7612), (sym_initial_step, 7439), (sym_config_init, 3047),
     (sym_variable_access, 7530), (sym_func_call, 2961), (sym_stmt_list, 7970), (sym__stmt, 2024),
     (sym_assign, 3150), (sym_if_stmt, 3150), (sym_case_stmt, 3150), (sym_for_stmt, 3150),
     (sym_while_stmt, 3150), (sym_repeat_stmt, 3150), (sym_raise_stmt, 3150), (sym_try_stmt, 3150),
     (sym_ERR_clause_outside_try, 3150), (sym_begin_path_expression, 2943), (sym_invocation, 2934),
     (sym_any_invocation, 2935), (sym_this_invocation, 2641), (sym_super_invocation, 2641),
     (sym_super_body_invocation, 2935), (sym_path_expression, 2627), (sym_field_expression, 2373),
     (sym_index_expression, 2373), (sym_ladder_diagram, 7970), (sym_fb_diagram, 7970),
     (aux_sym_ERR_fb_variables_after_method_repeat1, 2343), (aux_sym_func_decl_repeat1, 7194),
     (aux_sym_fb_decl_repeat3, 2549), (aux_sym_SFC_repeat1, 7612),
     (aux_sym_stmt_list_repeat1, 2024), (aux_sym_ladder_diagram_repeat1, 8009),
     (aux_sym_fb_diagram_repeat1, 8013), (sym_identifier, 298),
     (aux_sym_ERR_unexpected_this_in_path_token1, 304),
     (aux_sym_ERR_unexpected_super_in_path_token1, 306), (sym_line_comment, 3),
     (anon_sym_LBRACE, 308), (aux_sym_test_pragma_token1, 9), (aux_sym_once_pragma_token1, 11),
     (aux_sym_must_call_pragma_token1, 13), (aux_sym_export_pragma_token1, 15),
     (anon_sym_SEMI, 310), (anon_sym_PERCENT, 312), (aux_sym_input_decls_token1, 314),
     (aux_sym_output_decls_token1, 316), (aux_sym_in_out_decls_token1, 318),
     (aux_sym_var_decls_token1, 320), (aux_sym_temp_var_decls_token1, 322),
     (aux_sym_external_var_decls_token1, 324), (aux_sym_global_var_decls_token1, 326),
     (aux_sym_fb_decl_token4, 1518), (aux_sym_method_decl_token1, 330),
     (aux_sym_prog_access_decls_token1, 332), (aux_sym_initial_step_token1, 334),
     (aux_sym_config_init_token1, 336), (aux_sym__stmt_token1, 340), (aux_sym__stmt_token2, 340),
     (aux_sym__stmt_token3, 340), (aux_sym_if_stmt_token1, 342), (aux_sym_case_stmt_token1, 344),
     (aux_sym_for_stmt_token1, 346), (aux_sym_while_stmt_token1, 348),
     (aux_sym_repeat_stmt_token1, 350), (aux_sym_raise_stmt_token1, 352),
     (aux_sym_try_stmt_token1, 354), (aux_sym_try_stmt_token2, 356),
     (aux_sym_catch_clause_token1, 356), (aux_sym_finally_clause_token1, 356), (sym_ld_rung, 358),
     (sym_fbd_network, 360), (sym_c_style_comment, 3), (sym_pascal_style_comment, 3),
     (sym_pragma, 3)]"

lemma ts_parse_row_594_scan: "row_scan tokens_63_2 0 ts_parse_row_594 = Some (Suc (Suc (Suc (Suc 0))))"
  unfolding ts_parse_row_594_def by simp

text \<open>Lines 122444 to 122556.\<close>

definition ts_parse_row_595 :: parse_row where
  "ts_parse_row_595 =
    [(sym_ERR_assign_func_call, 7530), (sym_ERR_unexpected_this_in_path, 2372),
     (sym_ERR_unexpected_super_in_path, 2372), (sym_ERR_fb_variables_after_method, 1533),
     (sym_ERR_var_access_not_allowed, 3160), (sym_ERR_var_config_not_allowed, 3160),
     (sym_ERR_var_global_not_allowed, 3160), (sym_ERR_method_decl_in_body, 3150),
     (sym_extern_pragma, 7490), (sym_wasm_pragma, 3150), (sym_warn_pragma, 7490),
     (sym_allow_pragma, 3140), (sym_test_pragma, 7490), (sym_once_pragma, 7490),
     (sym_must_call_pragma, 7490), (sym_export_pragma, 7490), (sym_pou_pragma, 7194),
     (sym_direct_variable, 7675), (sym_deref_expression, 2373), (sym_variable, 7599),
     (sym_var_access, 2373), (sym_in_out_decls, 3160), (sym_var_decls, 3160),
     (sym_retain_var_decls, 3160), (sym_temp_var_decls, 3160), (sym_external_var_decls, 3160),
     (sym_global_var_decls, 2947), (sym_loc_partly_var_decl, 3160), (sym__fb_variables, 2343),
     (sym_fb_input_decls, 3160), (sym_fb_output_decls, 3160), (sym_no_retain_var_decls, 3160),
     (sym_fb_body, 9046), (sym_method_decl, 2549), (sym_prog_access_decls, 3043), (sym_SFC, 7970),
     (sym_SFC_network, 7612), (sym_initial_step, 7439), (sym_config_init, 3047),
     (sym_variable_access, 7530), (sym_func_call, 2961), (sym_stmt_list, 7970), (sym__stmt, 2024),
     (sym_assign, 3150), (sym_if_stmt, 3150), (sym_case_stmt, 3150), (sym_for_stmt, 3150),
     (sym_while_stmt, 3150), (sym_repeat_stmt, 3150), (sym_raise_stmt, 3150), (sym_try_stmt, 3150),
     (sym_ERR_clause_outside_try, 3150), (sym_begin_path_expression, 2943), (sym_invocation, 2934),
     (sym_any_invocation, 2935), (sym_this_invocation, 2641), (sym_super_invocation, 2641),
     (sym_super_body_invocation, 2935), (sym_path_expression, 2627), (sym_field_expression, 2373),
     (sym_index_expression, 2373), (sym_ladder_diagram, 7970), (sym_fb_diagram, 7970),
     (aux_sym_ERR_fb_variables_after_method_repeat1, 2343), (aux_sym_func_decl_repeat1, 7194),
     (aux_sym_fb_decl_repeat3, 2549), (aux_sym_SFC_repeat1, 7612),
     (aux_sym_stmt_list_repeat1, 2024), (aux_sym_ladder_diagram_repeat1, 8009),
     (aux_sym_fb_diagram_repeat1, 8013), (sym_identifier, 298),
     (aux_sym_ERR_unexpected_this_in_path_token1, 304),
     (aux_sym_ERR_unexpected_super_in_path_token1, 306), (sym_line_comment, 3),
     (anon_sym_LBRACE, 308), (aux_sym_test_pragma_token1, 9), (aux_sym_once_pragma_token1, 11),
     (aux_sym_must_call_pragma_token1, 13), (aux_sym_export_pragma_token1, 15),
     (anon_sym_SEMI, 310), (anon_sym_PERCENT, 312), (aux_sym_input_decls_token1, 314),
     (aux_sym_output_decls_token1, 316), (aux_sym_in_out_decls_token1, 318),
     (aux_sym_var_decls_token1, 320), (aux_sym_temp_var_decls_token1, 322),
     (aux_sym_external_var_decls_token1, 324), (aux_sym_global_var_decls_token1, 326),
     (aux_sym_fb_decl_token4, 1520), (aux_sym_method_decl_token1, 330),
     (aux_sym_prog_access_decls_token1, 332), (aux_sym_initial_step_token1, 334),
     (aux_sym_config_init_token1, 336), (aux_sym__stmt_token1, 340), (aux_sym__stmt_token2, 340),
     (aux_sym__stmt_token3, 340), (aux_sym_if_stmt_token1, 342), (aux_sym_case_stmt_token1, 344),
     (aux_sym_for_stmt_token1, 346), (aux_sym_while_stmt_token1, 348),
     (aux_sym_repeat_stmt_token1, 350), (aux_sym_raise_stmt_token1, 352),
     (aux_sym_try_stmt_token1, 354), (aux_sym_try_stmt_token2, 356),
     (aux_sym_catch_clause_token1, 356), (aux_sym_finally_clause_token1, 356), (sym_ld_rung, 358),
     (sym_fbd_network, 360), (sym_c_style_comment, 3), (sym_pascal_style_comment, 3),
     (sym_pragma, 3)]"

lemma ts_parse_row_595_scan: "row_scan tokens_63_2 0 ts_parse_row_595 = Some (Suc (Suc (Suc (Suc 0))))"
  unfolding ts_parse_row_595_def by simp

text \<open>Lines 122557 to 122669.\<close>

definition ts_parse_row_596 :: parse_row where
  "ts_parse_row_596 =
    [(sym_ERR_assign_func_call, 7530), (sym_ERR_unexpected_this_in_path, 2372),
     (sym_ERR_unexpected_super_in_path, 2372), (sym_ERR_fb_variables_after_method, 1534),
     (sym_ERR_var_access_not_allowed, 3160), (sym_ERR_var_config_not_allowed, 3160),
     (sym_ERR_var_global_not_allowed, 3160), (sym_ERR_method_decl_in_body, 3150),
     (sym_extern_pragma, 7490), (sym_wasm_pragma, 3150), (sym_warn_pragma, 7490),
     (sym_allow_pragma, 3140), (sym_test_pragma, 7490), (sym_once_pragma, 7490),
     (sym_must_call_pragma, 7490), (sym_export_pragma, 7490), (sym_pou_pragma, 7194),
     (sym_direct_variable, 7675), (sym_deref_expression, 2373), (sym_variable, 7599),
     (sym_var_access, 2373), (sym_in_out_decls, 3160), (sym_var_decls, 3160),
     (sym_retain_var_decls, 3160), (sym_temp_var_decls, 3160), (sym_external_var_decls, 3160),
     (sym_global_var_decls, 2947), (sym_loc_partly_var_decl, 3160), (sym__fb_variables, 2343),
     (sym_fb_input_decls, 3160), (sym_fb_output_decls, 3160), (sym_no_retain_var_decls, 3160),
     (sym_fb_body, 9068), (sym_method_decl, 2549), (sym_prog_access_decls, 3043), (sym_SFC, 7970),
     (sym_SFC_network, 7612), (sym_initial_step, 7439), (sym_config_init, 3047),
     (sym_variable_access, 7530), (sym_func_call, 2961), (sym_stmt_list, 7970), (sym__stmt, 2024),
     (sym_assign, 3150), (sym_if_stmt, 3150), (sym_case_stmt, 3150), (sym_for_stmt, 3150),
     (sym_while_stmt, 3150), (sym_repeat_stmt, 3150), (sym_raise_stmt, 3150), (sym_try_stmt, 3150),
     (sym_ERR_clause_outside_try, 3150), (sym_begin_path_expression, 2943), (sym_invocation, 2934),
     (sym_any_invocation, 2935), (sym_this_invocation, 2641), (sym_super_invocation, 2641),
     (sym_super_body_invocation, 2935), (sym_path_expression, 2627), (sym_field_expression, 2373),
     (sym_index_expression, 2373), (sym_ladder_diagram, 7970), (sym_fb_diagram, 7970),
     (aux_sym_ERR_fb_variables_after_method_repeat1, 2343), (aux_sym_func_decl_repeat1, 7194),
     (aux_sym_fb_decl_repeat3, 2549), (aux_sym_SFC_repeat1, 7612),
     (aux_sym_stmt_list_repeat1, 2024), (aux_sym_ladder_diagram_repeat1, 8009),
     (aux_sym_fb_diagram_repeat1, 8013), (sym_identifier, 298),
     (aux_sym_ERR_unexpected_this_in_path_token1, 304),
     (aux_sym_ERR_unexpected_super_in_path_token1, 306), (sym_line_comment, 3),
     (anon_sym_LBRACE, 308), (aux_sym_test_pragma_token1, 9), (aux_sym_once_pragma_token1, 11),
     (aux_sym_must_call_pragma_token1, 13), (aux_sym_export_pragma_token1, 15),
     (anon_sym_SEMI, 310), (anon_sym_PERCENT, 312), (aux_sym_input_decls_token1, 314),
     (aux_sym_output_decls_token1, 316), (aux_sym_in_out_decls_token1, 318),
     (aux_sym_var_decls_token1, 320), (aux_sym_temp_var_decls_token1, 322),
     (aux_sym_external_var_decls_token1, 324), (aux_sym_global_var_decls_token1, 326),
     (aux_sym_fb_decl_token4, 1522), (aux_sym_method_decl_token1, 330),
     (aux_sym_prog_access_decls_token1, 332), (aux_sym_initial_step_token1, 334),
     (aux_sym_config_init_token1, 336), (aux_sym__stmt_token1, 340), (aux_sym__stmt_token2, 340),
     (aux_sym__stmt_token3, 340), (aux_sym_if_stmt_token1, 342), (aux_sym_case_stmt_token1, 344),
     (aux_sym_for_stmt_token1, 346), (aux_sym_while_stmt_token1, 348),
     (aux_sym_repeat_stmt_token1, 350), (aux_sym_raise_stmt_token1, 352),
     (aux_sym_try_stmt_token1, 354), (aux_sym_try_stmt_token2, 356),
     (aux_sym_catch_clause_token1, 356), (aux_sym_finally_clause_token1, 356), (sym_ld_rung, 358),
     (sym_fbd_network, 360), (sym_c_style_comment, 3), (sym_pascal_style_comment, 3),
     (sym_pragma, 3)]"

lemma ts_parse_row_596_scan: "row_scan tokens_63_2 0 ts_parse_row_596 = Some (Suc (Suc (Suc (Suc 0))))"
  unfolding ts_parse_row_596_def by simp

text \<open>Lines 122670 to 122782.\<close>

definition ts_parse_row_597 :: parse_row where
  "ts_parse_row_597 =
    [(sym_ERR_assign_func_call, 7530), (sym_ERR_unexpected_this_in_path, 2372),
     (sym_ERR_unexpected_super_in_path, 2372), (sym_ERR_fb_variables_after_method, 1535),
     (sym_ERR_var_access_not_allowed, 3160), (sym_ERR_var_config_not_allowed, 3160),
     (sym_ERR_var_global_not_allowed, 3160), (sym_ERR_method_decl_in_body, 3150),
     (sym_extern_pragma, 7490), (sym_wasm_pragma, 3150), (sym_warn_pragma, 7490),
     (sym_allow_pragma, 3140), (sym_test_pragma, 7490), (sym_once_pragma, 7490),
     (sym_must_call_pragma, 7490), (sym_export_pragma, 7490), (sym_pou_pragma, 7194),
     (sym_direct_variable, 7675), (sym_deref_expression, 2373), (sym_variable, 7599),
     (sym_var_access, 2373), (sym_in_out_decls, 3160), (sym_var_decls, 3160),
     (sym_retain_var_decls, 3160), (sym_temp_var_decls, 3160), (sym_external_var_decls, 3160),
     (sym_global_var_decls, 2947), (sym_loc_partly_var_decl, 3160), (sym__fb_variables, 2347),
     (sym_fb_input_decls, 3160), (sym_fb_output_decls, 3160), (sym_no_retain_var_decls, 3160),
     (sym_fb_body, 9075), (sym_method_decl, 719), (sym_prog_access_decls, 3043), (sym_SFC, 7970),
     (sym_SFC_network, 7612), (sym_initial_step, 7439), (sym_config_init, 3047),
     (sym_variable_access, 7530), (sym_func_call, 2961), (sym_stmt_list, 7970), (sym__stmt, 2024),
     (sym_assign, 3150), (sym_if_stmt, 3150), (sym_case_stmt, 3150), (sym_for_stmt, 3150),
     (sym_while_stmt, 3150), (sym_repeat_stmt, 3150), (sym_raise_stmt, 3150), (sym_try_stmt, 3150),
     (sym_ERR_clause_outside_try, 3150), (sym_begin_path_expression, 2943), (sym_invocation, 2934),
     (sym_any_invocation, 2935), (sym_this_invocation, 2641), (sym_super_invocation, 2641),
     (sym_super_body_invocation, 2935), (sym_path_expression, 2627), (sym_field_expression, 2373),
     (sym_index_expression, 2373), (sym_ladder_diagram, 7970), (sym_fb_diagram, 7970),
     (aux_sym_ERR_fb_variables_after_method_repeat1, 2347), (aux_sym_func_decl_repeat1, 7194),
     (aux_sym_fb_decl_repeat3, 719), (aux_sym_SFC_repeat1, 7612), (aux_sym_stmt_list_repeat1, 2024),
     (aux_sym_ladder_diagram_repeat1, 8009), (aux_sym_fb_diagram_repeat1, 8013),
     (sym_identifier, 298), (aux_sym_ERR_unexpected_this_in_path_token1, 304),
     (aux_sym_ERR_unexpected_super_in_path_token1, 306), (sym_line_comment, 3),
     (anon_sym_LBRACE, 308), (aux_sym_test_pragma_token1, 9), (aux_sym_once_pragma_token1, 11),
     (aux_sym_must_call_pragma_token1, 13), (aux_sym_export_pragma_token1, 15),
     (anon_sym_SEMI, 310), (anon_sym_PERCENT, 312), (aux_sym_input_decls_token1, 314),
     (aux_sym_output_decls_token1, 316), (aux_sym_in_out_decls_token1, 318),
     (aux_sym_var_decls_token1, 320), (aux_sym_temp_var_decls_token1, 322),
     (aux_sym_external_var_decls_token1, 324), (aux_sym_global_var_decls_token1, 326),
     (aux_sym_fb_decl_token4, 1524), (aux_sym_method_decl_token1, 330),
     (aux_sym_prog_access_decls_token1, 332), (aux_sym_initial_step_token1, 334),
     (aux_sym_config_init_token1, 336), (aux_sym__stmt_token1, 340), (aux_sym__stmt_token2, 340),
     (aux_sym__stmt_token3, 340), (aux_sym_if_stmt_token1, 342), (aux_sym_case_stmt_token1, 344),
     (aux_sym_for_stmt_token1, 346), (aux_sym_while_stmt_token1, 348),
     (aux_sym_repeat_stmt_token1, 350), (aux_sym_raise_stmt_token1, 352),
     (aux_sym_try_stmt_token1, 354), (aux_sym_try_stmt_token2, 356),
     (aux_sym_catch_clause_token1, 356), (aux_sym_finally_clause_token1, 356), (sym_ld_rung, 358),
     (sym_fbd_network, 360), (sym_c_style_comment, 3), (sym_pascal_style_comment, 3),
     (sym_pragma, 3)]"

lemma ts_parse_row_597_scan: "row_scan tokens_63_2 0 ts_parse_row_597 = Some (Suc (Suc (Suc (Suc 0))))"
  unfolding ts_parse_row_597_def by simp

text \<open>Lines 122783 to 122895.\<close>

definition ts_parse_row_598 :: parse_row where
  "ts_parse_row_598 =
    [(sym_ERR_assign_func_call, 7530), (sym_ERR_unexpected_this_in_path, 2372),
     (sym_ERR_unexpected_super_in_path, 2372), (sym_ERR_fb_variables_after_method, 1536),
     (sym_ERR_var_access_not_allowed, 3160), (sym_ERR_var_config_not_allowed, 3160),
     (sym_ERR_var_global_not_allowed, 3160), (sym_ERR_method_decl_in_body, 3150),
     (sym_extern_pragma, 7490), (sym_wasm_pragma, 3150), (sym_warn_pragma, 7490),
     (sym_allow_pragma, 3140), (sym_test_pragma, 7490), (sym_once_pragma, 7490),
     (sym_must_call_pragma, 7490), (sym_export_pragma, 7490), (sym_pou_pragma, 7194),
     (sym_direct_variable, 7675), (sym_deref_expression, 2373), (sym_variable, 7599),
     (sym_var_access, 2373), (sym_in_out_decls, 3160), (sym_var_decls, 3160),
     (sym_retain_var_decls, 3160), (sym_temp_var_decls, 3160), (sym_external_var_decls, 3160),
     (sym_global_var_decls, 2947), (sym_loc_partly_var_decl, 3160), (sym__fb_variables, 2343),
     (sym_fb_input_decls, 3160), (sym_fb_output_decls, 3160), (sym_no_retain_var_decls, 3160),
     (sym_fb_body, 9080), (sym_method_decl, 2549), (sym_prog_access_decls, 3043), (sym_SFC, 7970),
     (sym_SFC_network, 7612), (sym_initial_step, 7439), (sym_config_init, 3047),
     (sym_variable_access, 7530), (sym_func_call, 2961), (sym_stmt_list, 7970), (sym__stmt, 2024),
     (sym_assign, 3150), (sym_if_stmt, 3150), (sym_case_stmt, 3150), (sym_for_stmt, 3150),
     (sym_while_stmt, 3150), (sym_repeat_stmt, 3150), (sym_raise_stmt, 3150), (sym_try_stmt, 3150),
     (sym_ERR_clause_outside_try, 3150), (sym_begin_path_expression, 2943), (sym_invocation, 2934),
     (sym_any_invocation, 2935), (sym_this_invocation, 2641), (sym_super_invocation, 2641),
     (sym_super_body_invocation, 2935), (sym_path_expression, 2627), (sym_field_expression, 2373),
     (sym_index_expression, 2373), (sym_ladder_diagram, 7970), (sym_fb_diagram, 7970),
     (aux_sym_ERR_fb_variables_after_method_repeat1, 2343), (aux_sym_func_decl_repeat1, 7194),
     (aux_sym_fb_decl_repeat3, 2549), (aux_sym_SFC_repeat1, 7612),
     (aux_sym_stmt_list_repeat1, 2024), (aux_sym_ladder_diagram_repeat1, 8009),
     (aux_sym_fb_diagram_repeat1, 8013), (sym_identifier, 298),
     (aux_sym_ERR_unexpected_this_in_path_token1, 304),
     (aux_sym_ERR_unexpected_super_in_path_token1, 306), (sym_line_comment, 3),
     (anon_sym_LBRACE, 308), (aux_sym_test_pragma_token1, 9), (aux_sym_once_pragma_token1, 11),
     (aux_sym_must_call_pragma_token1, 13), (aux_sym_export_pragma_token1, 15),
     (anon_sym_SEMI, 310), (anon_sym_PERCENT, 312), (aux_sym_input_decls_token1, 314),
     (aux_sym_output_decls_token1, 316), (aux_sym_in_out_decls_token1, 318),
     (aux_sym_var_decls_token1, 320), (aux_sym_temp_var_decls_token1, 322),
     (aux_sym_external_var_decls_token1, 324), (aux_sym_global_var_decls_token1, 326),
     (aux_sym_fb_decl_token4, 1526), (aux_sym_method_decl_token1, 330),
     (aux_sym_prog_access_decls_token1, 332), (aux_sym_initial_step_token1, 334),
     (aux_sym_config_init_token1, 336), (aux_sym__stmt_token1, 340), (aux_sym__stmt_token2, 340),
     (aux_sym__stmt_token3, 340), (aux_sym_if_stmt_token1, 342), (aux_sym_case_stmt_token1, 344),
     (aux_sym_for_stmt_token1, 346), (aux_sym_while_stmt_token1, 348),
     (aux_sym_repeat_stmt_token1, 350), (aux_sym_raise_stmt_token1, 352),
     (aux_sym_try_stmt_token1, 354), (aux_sym_try_stmt_token2, 356),
     (aux_sym_catch_clause_token1, 356), (aux_sym_finally_clause_token1, 356), (sym_ld_rung, 358),
     (sym_fbd_network, 360), (sym_c_style_comment, 3), (sym_pascal_style_comment, 3),
     (sym_pragma, 3)]"

lemma ts_parse_row_598_scan: "row_scan tokens_63_2 0 ts_parse_row_598 = Some (Suc (Suc (Suc (Suc 0))))"
  unfolding ts_parse_row_598_def by simp

text \<open>Lines 122896 to 123008.\<close>

definition ts_parse_row_599 :: parse_row where
  "ts_parse_row_599 =
    [(sym_ERR_assign_func_call, 7530), (sym_ERR_unexpected_this_in_path, 2372),
     (sym_ERR_unexpected_super_in_path, 2372), (sym_ERR_fb_variables_after_method, 1537),
     (sym_ERR_var_access_not_allowed, 3160), (sym_ERR_var_config_not_allowed, 3160),
     (sym_ERR_var_global_not_allowed, 3160), (sym_ERR_method_decl_in_body, 3150),
     (sym_extern_pragma, 7490), (sym_wasm_pragma, 3150), (sym_warn_pragma, 7490),
     (sym_allow_pragma, 3140), (sym_test_pragma, 7490), (sym_once_pragma, 7490),
     (sym_must_call_pragma, 7490), (sym_export_pragma, 7490), (sym_pou_pragma, 7194),
     (sym_direct_variable, 7675), (sym_deref_expression, 2373), (sym_variable, 7599),
     (sym_var_access, 2373), (sym_in_out_decls, 3160), (sym_var_decls, 3160),
     (sym_retain_var_decls, 3160), (sym_temp_var_decls, 3160), (sym_external_var_decls, 3160),
     (sym_global_var_decls, 2947), (sym_loc_partly_var_decl, 3160), (sym__fb_variables, 2343),
     (sym_fb_input_decls, 3160), (sym_fb_output_decls, 3160), (sym_no_retain_var_decls, 3160),
     (sym_fb_body, 9099), (sym_method_decl, 2549), (sym_prog_access_decls, 3043), (sym_SFC, 7970),
     (sym_SFC_network, 7612), (sym_initial_step, 7439), (sym_config_init, 3047),
     (sym_variable_access, 7530), (sym_func_call, 2961), (sym_stmt_list, 7970), (sym__stmt, 2024),
     (sym_assign, 3150), (sym_if_stmt, 3150), (sym_case_stmt, 3150), (sym_for_stmt, 3150),
     (sym_while_stmt, 3150), (sym_repeat_stmt, 3150), (sym_raise_stmt, 3150), (sym_try_stmt, 3150),
     (sym_ERR_clause_outside_try, 3150), (sym_begin_path_expression, 2943), (sym_invocation, 2934),
     (sym_any_invocation, 2935), (sym_this_invocation, 2641), (sym_super_invocation, 2641),
     (sym_super_body_invocation, 2935), (sym_path_expression, 2627), (sym_field_expression, 2373),
     (sym_index_expression, 2373), (sym_ladder_diagram, 7970), (sym_fb_diagram, 7970),
     (aux_sym_ERR_fb_variables_after_method_repeat1, 2343), (aux_sym_func_decl_repeat1, 7194),
     (aux_sym_fb_decl_repeat3, 2549), (aux_sym_SFC_repeat1, 7612),
     (aux_sym_stmt_list_repeat1, 2024), (aux_sym_ladder_diagram_repeat1, 8009),
     (aux_sym_fb_diagram_repeat1, 8013), (sym_identifier, 298),
     (aux_sym_ERR_unexpected_this_in_path_token1, 304),
     (aux_sym_ERR_unexpected_super_in_path_token1, 306), (sym_line_comment, 3),
     (anon_sym_LBRACE, 308), (aux_sym_test_pragma_token1, 9), (aux_sym_once_pragma_token1, 11),
     (aux_sym_must_call_pragma_token1, 13), (aux_sym_export_pragma_token1, 15),
     (anon_sym_SEMI, 310), (anon_sym_PERCENT, 312), (aux_sym_input_decls_token1, 314),
     (aux_sym_output_decls_token1, 316), (aux_sym_in_out_decls_token1, 318),
     (aux_sym_var_decls_token1, 320), (aux_sym_temp_var_decls_token1, 322),
     (aux_sym_external_var_decls_token1, 324), (aux_sym_global_var_decls_token1, 326),
     (aux_sym_fb_decl_token4, 1528), (aux_sym_method_decl_token1, 330),
     (aux_sym_prog_access_decls_token1, 332), (aux_sym_initial_step_token1, 334),
     (aux_sym_config_init_token1, 336), (aux_sym__stmt_token1, 340), (aux_sym__stmt_token2, 340),
     (aux_sym__stmt_token3, 340), (aux_sym_if_stmt_token1, 342), (aux_sym_case_stmt_token1, 344),
     (aux_sym_for_stmt_token1, 346), (aux_sym_while_stmt_token1, 348),
     (aux_sym_repeat_stmt_token1, 350), (aux_sym_raise_stmt_token1, 352),
     (aux_sym_try_stmt_token1, 354), (aux_sym_try_stmt_token2, 356),
     (aux_sym_catch_clause_token1, 356), (aux_sym_finally_clause_token1, 356), (sym_ld_rung, 358),
     (sym_fbd_network, 360), (sym_c_style_comment, 3), (sym_pascal_style_comment, 3),
     (sym_pragma, 3)]"

lemma ts_parse_row_599_scan: "row_scan tokens_63_2 0 ts_parse_row_599 = Some (Suc (Suc (Suc (Suc 0))))"
  unfolding ts_parse_row_599_def by simp

definition parse_rows_4 :: "parse_row list" where
  "parse_rows_4 =
    [ts_parse_row_450, ts_parse_row_451, ts_parse_row_452, ts_parse_row_453, ts_parse_row_454,
     ts_parse_row_455, ts_parse_row_456, ts_parse_row_457, ts_parse_row_458, ts_parse_row_459,
     ts_parse_row_460, ts_parse_row_461, ts_parse_row_462, ts_parse_row_463, ts_parse_row_464,
     ts_parse_row_465, ts_parse_row_466, ts_parse_row_467, ts_parse_row_468, ts_parse_row_469,
     ts_parse_row_470, ts_parse_row_471, ts_parse_row_472, ts_parse_row_473, ts_parse_row_474,
     ts_parse_row_475, ts_parse_row_476, ts_parse_row_477, ts_parse_row_478, ts_parse_row_479,
     ts_parse_row_480, ts_parse_row_481, ts_parse_row_482, ts_parse_row_483, ts_parse_row_484,
     ts_parse_row_485, ts_parse_row_486, ts_parse_row_487, ts_parse_row_488, ts_parse_row_489,
     ts_parse_row_490, ts_parse_row_491, ts_parse_row_492, ts_parse_row_493, ts_parse_row_494,
     ts_parse_row_495, ts_parse_row_496, ts_parse_row_497, ts_parse_row_498, ts_parse_row_499,
     ts_parse_row_500, ts_parse_row_501, ts_parse_row_502, ts_parse_row_503, ts_parse_row_504,
     ts_parse_row_505, ts_parse_row_506, ts_parse_row_507, ts_parse_row_508, ts_parse_row_509,
     ts_parse_row_510, ts_parse_row_511, ts_parse_row_512, ts_parse_row_513, ts_parse_row_514,
     ts_parse_row_515, ts_parse_row_516, ts_parse_row_517, ts_parse_row_518, ts_parse_row_519,
     ts_parse_row_520, ts_parse_row_521, ts_parse_row_522, ts_parse_row_523, ts_parse_row_524,
     ts_parse_row_525, ts_parse_row_526, ts_parse_row_527, ts_parse_row_528, ts_parse_row_529,
     ts_parse_row_530, ts_parse_row_531, ts_parse_row_532, ts_parse_row_533, ts_parse_row_534,
     ts_parse_row_535, ts_parse_row_536, ts_parse_row_537, ts_parse_row_538, ts_parse_row_539,
     ts_parse_row_540, ts_parse_row_541, ts_parse_row_542, ts_parse_row_543, ts_parse_row_544,
     ts_parse_row_545, ts_parse_row_546, ts_parse_row_547, ts_parse_row_548, ts_parse_row_549,
     ts_parse_row_550, ts_parse_row_551, ts_parse_row_552, ts_parse_row_553, ts_parse_row_554,
     ts_parse_row_555, ts_parse_row_556, ts_parse_row_557, ts_parse_row_558, ts_parse_row_559,
     ts_parse_row_560, ts_parse_row_561, ts_parse_row_562, ts_parse_row_563, ts_parse_row_564,
     ts_parse_row_565, ts_parse_row_566, ts_parse_row_567, ts_parse_row_568, ts_parse_row_569,
     ts_parse_row_570, ts_parse_row_571, ts_parse_row_572, ts_parse_row_573, ts_parse_row_574,
     ts_parse_row_575, ts_parse_row_576, ts_parse_row_577, ts_parse_row_578, ts_parse_row_579,
     ts_parse_row_580, ts_parse_row_581, ts_parse_row_582, ts_parse_row_583, ts_parse_row_584,
     ts_parse_row_585, ts_parse_row_586, ts_parse_row_587, ts_parse_row_588, ts_parse_row_589,
     ts_parse_row_590, ts_parse_row_591, ts_parse_row_592, ts_parse_row_593, ts_parse_row_594,
     ts_parse_row_595, ts_parse_row_596, ts_parse_row_597, ts_parse_row_598, ts_parse_row_599]"

lemmas parse_rows_4_scan =
  ts_parse_row_450_scan ts_parse_row_451_scan ts_parse_row_452_scan ts_parse_row_453_scan
  ts_parse_row_454_scan ts_parse_row_455_scan ts_parse_row_456_scan ts_parse_row_457_scan
  ts_parse_row_458_scan ts_parse_row_459_scan ts_parse_row_460_scan ts_parse_row_461_scan
  ts_parse_row_462_scan ts_parse_row_463_scan ts_parse_row_464_scan ts_parse_row_465_scan
  ts_parse_row_466_scan ts_parse_row_467_scan ts_parse_row_468_scan ts_parse_row_469_scan
  ts_parse_row_470_scan ts_parse_row_471_scan ts_parse_row_472_scan ts_parse_row_473_scan
  ts_parse_row_474_scan ts_parse_row_475_scan ts_parse_row_476_scan ts_parse_row_477_scan
  ts_parse_row_478_scan ts_parse_row_479_scan ts_parse_row_480_scan ts_parse_row_481_scan
  ts_parse_row_482_scan ts_parse_row_483_scan ts_parse_row_484_scan ts_parse_row_485_scan
  ts_parse_row_486_scan ts_parse_row_487_scan ts_parse_row_488_scan ts_parse_row_489_scan
  ts_parse_row_490_scan ts_parse_row_491_scan ts_parse_row_492_scan ts_parse_row_493_scan
  ts_parse_row_494_scan ts_parse_row_495_scan ts_parse_row_496_scan ts_parse_row_497_scan
  ts_parse_row_498_scan ts_parse_row_499_scan ts_parse_row_500_scan ts_parse_row_501_scan
  ts_parse_row_502_scan ts_parse_row_503_scan ts_parse_row_504_scan ts_parse_row_505_scan
  ts_parse_row_506_scan ts_parse_row_507_scan ts_parse_row_508_scan ts_parse_row_509_scan
  ts_parse_row_510_scan ts_parse_row_511_scan ts_parse_row_512_scan ts_parse_row_513_scan
  ts_parse_row_514_scan ts_parse_row_515_scan ts_parse_row_516_scan ts_parse_row_517_scan
  ts_parse_row_518_scan ts_parse_row_519_scan ts_parse_row_520_scan ts_parse_row_521_scan
  ts_parse_row_522_scan ts_parse_row_523_scan ts_parse_row_524_scan ts_parse_row_525_scan
  ts_parse_row_526_scan ts_parse_row_527_scan ts_parse_row_528_scan ts_parse_row_529_scan
  ts_parse_row_530_scan ts_parse_row_531_scan ts_parse_row_532_scan ts_parse_row_533_scan
  ts_parse_row_534_scan ts_parse_row_535_scan ts_parse_row_536_scan ts_parse_row_537_scan
  ts_parse_row_538_scan ts_parse_row_539_scan ts_parse_row_540_scan ts_parse_row_541_scan
  ts_parse_row_542_scan ts_parse_row_543_scan ts_parse_row_544_scan ts_parse_row_545_scan
  ts_parse_row_546_scan ts_parse_row_547_scan ts_parse_row_548_scan ts_parse_row_549_scan
  ts_parse_row_550_scan ts_parse_row_551_scan ts_parse_row_552_scan ts_parse_row_553_scan
  ts_parse_row_554_scan ts_parse_row_555_scan ts_parse_row_556_scan ts_parse_row_557_scan
  ts_parse_row_558_scan ts_parse_row_559_scan ts_parse_row_560_scan ts_parse_row_561_scan
  ts_parse_row_562_scan ts_parse_row_563_scan ts_parse_row_564_scan ts_parse_row_565_scan
  ts_parse_row_566_scan ts_parse_row_567_scan ts_parse_row_568_scan ts_parse_row_569_scan
  ts_parse_row_570_scan ts_parse_row_571_scan ts_parse_row_572_scan ts_parse_row_573_scan
  ts_parse_row_574_scan ts_parse_row_575_scan ts_parse_row_576_scan ts_parse_row_577_scan
  ts_parse_row_578_scan ts_parse_row_579_scan ts_parse_row_580_scan ts_parse_row_581_scan
  ts_parse_row_582_scan ts_parse_row_583_scan ts_parse_row_584_scan ts_parse_row_585_scan
  ts_parse_row_586_scan ts_parse_row_587_scan ts_parse_row_588_scan ts_parse_row_589_scan
  ts_parse_row_590_scan ts_parse_row_591_scan ts_parse_row_592_scan ts_parse_row_593_scan
  ts_parse_row_594_scan ts_parse_row_595_scan ts_parse_row_596_scan ts_parse_row_597_scan
  ts_parse_row_598_scan ts_parse_row_599_scan

end
