(* ===== verification/Parse_Table_5.thy ===== *)
theory Parse_Table_5
  imports Parse_Cells
begin

text \<open>
  The rows 600 to 749 of \<open>ts_parse_table\<close> in \<open>src/crates/tree-sitter/src/parser.c\<close>, and the check of each
  against the tokens of its mode.
\<close>

text \<open>Lines 123009 to 123121.\<close>

definition ts_parse_row_600 :: parse_row where
  "ts_parse_row_600 =
    [(sym_ERR_assign_func_call, 7530), (sym_ERR_unexpected_this_in_path, 2372),
     (sym_ERR_unexpected_super_in_path, 2372), (sym_ERR_fb_variables_after_method, 1538),
     (sym_ERR_var_access_not_allowed, 3160), (sym_ERR_var_config_not_allowed, 3160),
     (sym_ERR_var_global_not_allowed, 3160), (sym_ERR_method_decl_in_body, 3150),
     (sym_extern_pragma, 7490), (sym_wasm_pragma, 3150), (sym_warn_pragma, 7490),
     (sym_allow_pragma, 3140), (sym_test_pragma, 7490), (sym_once_pragma, 7490),
     (sym_must_call_pragma, 7490), (sym_export_pragma, 7490), (sym_pou_pragma, 7194),
     (sym_direct_variable, 7675), (sym_deref_expression, 2373), (sym_variable, 7599),
     (sym_var_access, 2373), (sym_in_out_decls, 3160), (sym_var_decls, 3160),
     (sym_retain_var_decls, 3160), (sym_temp_var_decls, 3160), (sym_external_var_decls, 3160),
     (sym_global_var_decls, 2947), (sym_loc_partly_var_decl, 3160), (sym__fb_variables, 2343),
     (sym_fb_input_decls, 3160), (sym_fb_output_decls, 3160), (sym_no_retain_var_decls, 3160),
     (sym_fb_body, 9113), (sym_method_decl, 2549), (sym_prog_access_decls, 3043), (sym_SFC, 7970),
     (sym_SFC_network, 7612), (sym_initial_step, 7439), (sym_config_init, 3047),
     (sym_variable_access, 7530), (sym_func_call, 2961), (sym_stmt_list, 7970), (sym__stmt, 2024),
     (sym_assign, 3150), (sym_if_stmt, 3150), (sym_case_stmt, 3150), (sym_for_stmt, 3150),
     (sym_while_stmt, 3150), (sym_repeat_stmt, 3150), (sym_raise_stmt, 3150), (sym_try_stmt, 3150),
     (sym_ERR_clause_outside_try, 3150), (sym_begin_path_expression, 2943), (sym_invocation, 2934),
     (sym_any_invocation, 2935), (sym_this_invocation, 2641), (sym_super_invocation, 2641),
     (sym_super_body_invocation, 2935), (sym_path_expression, 2627), (sym_field_expression, 2373),
     (sym_index_expression, 2373), (sym_ladder_diagram, 7970), (sym_fb_diagram, 7970),
     (aux_sym_ERR_fb_variables_after_method_repeat1, 2343), (aux_sym_func_decl_repeat1, 7194),
     (aux_sym_fb_decl_repeat3, 2549), (aux_sym_SFC_repeat1, 7612),
     (aux_sym_stmt_list_repeat1, 2024), (aux_sym_ladder_diagram_repeat1, 8009),
     (aux_sym_fb_diagram_repeat1, 8013), (sym_identifier, 298),
     (aux_sym_ERR_unexpected_this_in_path_token1, 304),
     (aux_sym_ERR_unexpected_super_in_path_token1, 306), (sym_line_comment, 3),
     (anon_sym_LBRACE, 308), (aux_sym_test_pragma_token1, 9), (aux_sym_once_pragma_token1, 11),
     (aux_sym_must_call_pragma_token1, 13), (aux_sym_export_pragma_token1, 15),
     (anon_sym_SEMI, 310), (anon_sym_PERCENT, 312), (aux_sym_input_decls_token1, 314),
     (aux_sym_output_decls_token1, 316), (aux_sym_in_out_decls_token1, 318),
     (aux_sym_var_decls_token1, 320), (aux_sym_temp_var_decls_token1, 322),
     (aux_sym_external_var_decls_token1, 324), (aux_sym_global_var_decls_token1, 326),
     (aux_sym_fb_decl_token4, 1530), (aux_sym_method_decl_token1, 330),
     (aux_sym_prog_access_decls_token1, 332), (aux_sym_initial_step_token1, 334),
     (aux_sym_config_init_token1, 336), (aux_sym__stmt_token1, 340), (aux_sym__stmt_token2, 340),
     (aux_sym__stmt_token3, 340), (aux_sym_if_stmt_token1, 342), (aux_sym_case_stmt_token1, 344),
     (aux_sym_for_stmt_token1, 346), (aux_sym_while_stmt_token1, 348),
     (aux_sym_repeat_stmt_token1, 350), (aux_sym_raise_stmt_token1, 352),
     (aux_sym_try_stmt_token1, 354), (aux_sym_try_stmt_token2, 356),
     (aux_sym_catch_clause_token1, 356), (aux_sym_finally_clause_token1, 356), (sym_ld_rung, 358),
     (sym_fbd_network, 360), (sym_c_style_comment, 3), (sym_pascal_style_comment, 3),
     (sym_pragma, 3)]"

lemma ts_parse_row_600_scan: "row_scan tokens_63_2 0 ts_parse_row_600 = Some (Suc (Suc (Suc (Suc 0))))"
  unfolding ts_parse_row_600_def by simp

text \<open>Lines 123122 to 123234.\<close>

definition ts_parse_row_601 :: parse_row where
  "ts_parse_row_601 =
    [(sym_ERR_assign_func_call, 7530), (sym_ERR_unexpected_this_in_path, 2372),
     (sym_ERR_unexpected_super_in_path, 2372), (sym_ERR_fb_variables_after_method, 1539),
     (sym_ERR_var_access_not_allowed, 3160), (sym_ERR_var_config_not_allowed, 3160),
     (sym_ERR_var_global_not_allowed, 3160), (sym_ERR_method_decl_in_body, 3150),
     (sym_extern_pragma, 7490), (sym_wasm_pragma, 3150), (sym_warn_pragma, 7490),
     (sym_allow_pragma, 3140), (sym_test_pragma, 7490), (sym_once_pragma, 7490),
     (sym_must_call_pragma, 7490), (sym_export_pragma, 7490), (sym_pou_pragma, 7194),
     (sym_direct_variable, 7675), (sym_deref_expression, 2373), (sym_variable, 7599),
     (sym_var_access, 2373), (sym_in_out_decls, 3160), (sym_var_decls, 3160),
     (sym_retain_var_decls, 3160), (sym_temp_var_decls, 3160), (sym_external_var_decls, 3160),
     (sym_global_var_decls, 2947), (sym_loc_partly_var_decl, 3160), (sym__fb_variables, 2347),
     (sym_fb_input_decls, 3160), (sym_fb_output_decls, 3160), (sym_no_retain_var_decls, 3160),
     (sym_fb_body, 9121), (sym_method_decl, 720), (sym_prog_access_decls, 3043), (sym_SFC, 7970),
     (sym_SFC_network, 7612), (sym_initial_step, 7439), (sym_config_init, 3047),
     (sym_variable_access, 7530), (sym_func_call, 2961), (sym_stmt_list, 7970), (sym__stmt, 2024),
     (sym_assign, 3150), (sym_if_stmt, 3150), (sym_case_stmt, 3150), (sym_for_stmt, 3150),
     (sym_while_stmt, 3150), (sym_repeat_stmt, 3150), (sym_raise_stmt, 3150), (sym_try_stmt, 3150),
     (sym_ERR_clause_outside_try, 3150), (sym_begin_path_expression, 2943), (sym_invocation, 2934),
     (sym_any_invocation, 2935), (sym_this_invocation, 2641), (sym_super_invocation, 2641),
     (sym_super_body_invocation, 2935), (sym_path_expression, 2627), (sym_field_expression, 2373),
     (sym_index_expression, 2373), (sym_ladder_diagram, 7970), (sym_fb_diagram, 7970),
     (aux_sym_ERR_fb_variables_after_method_repeat1, 2347), (aux_sym_func_decl_repeat1, 7194),
     (aux_sym_fb_decl_repeat3, 720), (aux_sym_SFC_repeat1, 7612), (aux_sym_stmt_list_repeat1, 2024),
     (aux_sym_ladder_diagram_repeat1, 8009), (aux_sym_fb_diagram_repeat1, 8013),
     (sym_identifier, 298), (aux_sym_ERR_unexpected_this_in_path_token1, 304),
     (aux_sym_ERR_unexpected_super_in_path_token1, 306), (sym_line_comment, 3),
     (anon_sym_LBRACE, 308), (aux_sym_test_pragma_token1, 9), (aux_sym_once_pragma_token1, 11),
     (aux_sym_must_call_pragma_token1, 13), (aux_sym_export_pragma_token1, 15),
     (anon_sym_SEMI, 310), (anon_sym_PERCENT, 312), (aux_sym_input_decls_token1, 314),
     (aux_sym_output_decls_token1, 316), (aux_sym_in_out_decls_token1, 318),
     (aux_sym_var_decls_token1, 320), (aux_sym_temp_var_decls_token1, 322),
     (aux_sym_external_var_decls_token1, 324), (aux_sym_global_var_decls_token1, 326),
     (aux_sym_fb_decl_token4, 1532), (aux_sym_method_decl_token1, 330),
     (aux_sym_prog_access_decls_token1, 332), (aux_sym_initial_step_token1, 334),
     (aux_sym_config_init_token1, 336), (aux_sym__stmt_token1, 340), (aux_sym__stmt_token2, 340),
     (aux_sym__stmt_token3, 340), (aux_sym_if_stmt_token1, 342), (aux_sym_case_stmt_token1, 344),
     (aux_sym_for_stmt_token1, 346), (aux_sym_while_stmt_token1, 348),
     (aux_sym_repeat_stmt_token1, 350), (aux_sym_raise_stmt_token1, 352),
     (aux_sym_try_stmt_token1, 354), (aux_sym_try_stmt_token2, 356),
     (aux_sym_catch_clause_token1, 356), (aux_sym_finally_clause_token1, 356), (sym_ld_rung, 358),
     (sym_fbd_network, 360), (sym_c_style_comment, 3), (sym_pascal_style_comment, 3),
     (sym_pragma, 3)]"

lemma ts_parse_row_601_scan: "row_scan tokens_63_2 0 ts_parse_row_601 = Some (Suc (Suc (Suc (Suc 0))))"
  unfolding ts_parse_row_601_def by simp

text \<open>Lines 123235 to 123347.\<close>

definition ts_parse_row_602 :: parse_row where
  "ts_parse_row_602 =
    [(sym_ERR_assign_func_call, 7530), (sym_ERR_unexpected_this_in_path, 2372),
     (sym_ERR_unexpected_super_in_path, 2372), (sym_ERR_fb_variables_after_method, 1540),
     (sym_ERR_var_access_not_allowed, 3160), (sym_ERR_var_config_not_allowed, 3160),
     (sym_ERR_var_global_not_allowed, 3160), (sym_ERR_method_decl_in_body, 3150),
     (sym_extern_pragma, 7490), (sym_wasm_pragma, 3150), (sym_warn_pragma, 7490),
     (sym_allow_pragma, 3140), (sym_test_pragma, 7490), (sym_once_pragma, 7490),
     (sym_must_call_pragma, 7490), (sym_export_pragma, 7490), (sym_pou_pragma, 7194),
     (sym_direct_variable, 7675), (sym_deref_expression, 2373), (sym_variable, 7599),
     (sym_var_access, 2373), (sym_in_out_decls, 3160), (sym_var_decls, 3160),
     (sym_retain_var_decls, 3160), (sym_temp_var_decls, 3160), (sym_external_var_decls, 3160),
     (sym_global_var_decls, 2947), (sym_loc_partly_var_decl, 3160), (sym__fb_variables, 2343),
     (sym_fb_input_decls, 3160), (sym_fb_output_decls, 3160), (sym_no_retain_var_decls, 3160),
     (sym_fb_body, 9127), (sym_method_decl, 2549), (sym_prog_access_decls, 3043), (sym_SFC, 7970),
     (sym_SFC_network, 7612), (sym_initial_step, 7439), (sym_config_init, 3047),
     (sym_variable_access, 7530), (sym_func_call, 2961), (sym_stmt_list, 7970), (sym__stmt, 2024),
     (sym_assign, 3150), (sym_if_stmt, 3150), (sym_case_stmt, 3150), (sym_for_stmt, 3150),
     (sym_while_stmt, 3150), (sym_repeat_stmt, 3150), (sym_raise_stmt, 3150), (sym_try_stmt, 3150),
     (sym_ERR_clause_outside_try, 3150), (sym_begin_path_expression, 2943), (sym_invocation, 2934),
     (sym_any_invocation, 2935), (sym_this_invocation, 2641), (sym_super_invocation, 2641),
     (sym_super_body_invocation, 2935), (sym_path_expression, 2627), (sym_field_expression, 2373),
     (sym_index_expression, 2373), (sym_ladder_diagram, 7970), (sym_fb_diagram, 7970),
     (aux_sym_ERR_fb_variables_after_method_repeat1, 2343), (aux_sym_func_decl_repeat1, 7194),
     (aux_sym_fb_decl_repeat3, 2549), (aux_sym_SFC_repeat1, 7612),
     (aux_sym_stmt_list_repeat1, 2024), (aux_sym_ladder_diagram_repeat1, 8009),
     (aux_sym_fb_diagram_repeat1, 8013), (sym_identifier, 298),
     (aux_sym_ERR_unexpected_this_in_path_token1, 304),
     (aux_sym_ERR_unexpected_super_in_path_token1, 306), (sym_line_comment, 3),
     (anon_sym_LBRACE, 308), (aux_sym_test_pragma_token1, 9), (aux_sym_once_pragma_token1, 11),
     (aux_sym_must_call_pragma_token1, 13), (aux_sym_export_pragma_token1, 15),
     (anon_sym_SEMI, 310), (anon_sym_PERCENT, 312), (aux_sym_input_decls_token1, 314),
     (aux_sym_output_decls_token1, 316), (aux_sym_in_out_decls_token1, 318),
     (aux_sym_var_decls_token1, 320), (aux_sym_temp_var_decls_token1, 322),
     (aux_sym_external_var_decls_token1, 324), (aux_sym_global_var_decls_token1, 326),
     (aux_sym_fb_decl_token4, 1534), (aux_sym_method_decl_token1, 330),
     (aux_sym_prog_access_decls_token1, 332), (aux_sym_initial_step_token1, 334),
     (aux_sym_config_init_token1, 336), (aux_sym__stmt_token1, 340), (aux_sym__stmt_token2, 340),
     (aux_sym__stmt_token3, 340), (aux_sym_if_stmt_token1, 342), (aux_sym_case_stmt_token1, 344),
     (aux_sym_for_stmt_token1, 346), (aux_sym_while_stmt_token1, 348),
     (aux_sym_repeat_stmt_token1, 350), (aux_sym_raise_stmt_token1, 352),
     (aux_sym_try_stmt_token1, 354), (aux_sym_try_stmt_token2, 356),
     (aux_sym_catch_clause_token1, 356), (aux_sym_finally_clause_token1, 356), (sym_ld_rung, 358),
     (sym_fbd_network, 360), (sym_c_style_comment, 3), (sym_pascal_style_comment, 3),
     (sym_pragma, 3)]"

lemma ts_parse_row_602_scan: "row_scan tokens_63_2 0 ts_parse_row_602 = Some (Suc (Suc (Suc (Suc 0))))"
  unfolding ts_parse_row_602_def by simp

text \<open>Lines 123348 to 123460.\<close>

definition ts_parse_row_603 :: parse_row where
  "ts_parse_row_603 =
    [(sym_ERR_assign_func_call, 7530), (sym_ERR_unexpected_this_in_path, 2372),
     (sym_ERR_unexpected_super_in_path, 2372), (sym_ERR_fb_variables_after_method, 1541),
     (sym_ERR_var_access_not_allowed, 3160), (sym_ERR_var_config_not_allowed, 3160),
     (sym_ERR_var_global_not_allowed, 3160), (sym_ERR_method_decl_in_body, 3150),
     (sym_extern_pragma, 7490), (sym_wasm_pragma, 3150), (sym_warn_pragma, 7490),
     (sym_allow_pragma, 3140), (sym_test_pragma, 7490), (sym_once_pragma, 7490),
     (sym_must_call_pragma, 7490), (sym_export_pragma, 7490), (sym_pou_pragma, 7194),
     (sym_direct_variable, 7675), (sym_deref_expression, 2373), (sym_variable, 7599),
     (sym_var_access, 2373), (sym_in_out_decls, 3160), (sym_var_decls, 3160),
     (sym_retain_var_decls, 3160), (sym_temp_var_decls, 3160), (sym_external_var_decls, 3160),
     (sym_global_var_decls, 2947), (sym_loc_partly_var_decl, 3160), (sym__fb_variables, 2347),
     (sym_fb_input_decls, 3160), (sym_fb_output_decls, 3160), (sym_no_retain_var_decls, 3160),
     (sym_fb_body, 9141), (sym_method_decl, 721), (sym_prog_access_decls, 3043), (sym_SFC, 7970),
     (sym_SFC_network, 7612), (sym_initial_step, 7439), (sym_config_init, 3047),
     (sym_variable_access, 7530), (sym_func_call, 2961), (sym_stmt_list, 7970), (sym__stmt, 2024),
     (sym_assign, 3150), (sym_if_stmt, 3150), (sym_case_stmt, 3150), (sym_for_stmt, 3150),
     (sym_while_stmt, 3150), (sym_repeat_stmt, 3150), (sym_raise_stmt, 3150), (sym_try_stmt, 3150),
     (sym_ERR_clause_outside_try, 3150), (sym_begin_path_expression, 2943), (sym_invocation, 2934),
     (sym_any_invocation, 2935), (sym_this_invocation, 2641), (sym_super_invocation, 2641),
     (sym_super_body_invocation, 2935), (sym_path_expression, 2627), (sym_field_expression, 2373),
     (sym_index_expression, 2373), (sym_ladder_diagram, 7970), (sym_fb_diagram, 7970),
     (aux_sym_ERR_fb_variables_after_method_repeat1, 2347), (aux_sym_func_decl_repeat1, 7194),
     (aux_sym_fb_decl_repeat3, 721), (aux_sym_SFC_repeat1, 7612), (aux_sym_stmt_list_repeat1, 2024),
     (aux_sym_ladder_diagram_repeat1, 8009), (aux_sym_fb_diagram_repeat1, 8013),
     (sym_identifier, 298), (aux_sym_ERR_unexpected_this_in_path_token1, 304),
     (aux_sym_ERR_unexpected_super_in_path_token1, 306), (sym_line_comment, 3),
     (anon_sym_LBRACE, 308), (aux_sym_test_pragma_token1, 9), (aux_sym_once_pragma_token1, 11),
     (aux_sym_must_call_pragma_token1, 13), (aux_sym_export_pragma_token1, 15),
     (anon_sym_SEMI, 310), (anon_sym_PERCENT, 312), (aux_sym_input_decls_token1, 314),
     (aux_sym_output_decls_token1, 316), (aux_sym_in_out_decls_token1, 318),
     (aux_sym_var_decls_token1, 320), (aux_sym_temp_var_decls_token1, 322),
     (aux_sym_external_var_decls_token1, 324), (aux_sym_global_var_decls_token1, 326),
     (aux_sym_fb_decl_token4, 1536), (aux_sym_method_decl_token1, 330),
     (aux_sym_prog_access_decls_token1, 332), (aux_sym_initial_step_token1, 334),
     (aux_sym_config_init_token1, 336), (aux_sym__stmt_token1, 340), (aux_sym__stmt_token2, 340),
     (aux_sym__stmt_token3, 340), (aux_sym_if_stmt_token1, 342), (aux_sym_case_stmt_token1, 344),
     (aux_sym_for_stmt_token1, 346), (aux_sym_while_stmt_token1, 348),
     (aux_sym_repeat_stmt_token1, 350), (aux_sym_raise_stmt_token1, 352),
     (aux_sym_try_stmt_token1, 354), (aux_sym_try_stmt_token2, 356),
     (aux_sym_catch_clause_token1, 356), (aux_sym_finally_clause_token1, 356), (sym_ld_rung, 358),
     (sym_fbd_network, 360), (sym_c_style_comment, 3), (sym_pascal_style_comment, 3),
     (sym_pragma, 3)]"

lemma ts_parse_row_603_scan: "row_scan tokens_63_2 0 ts_parse_row_603 = Some (Suc (Suc (Suc (Suc 0))))"
  unfolding ts_parse_row_603_def by simp

text \<open>Lines 123461 to 123573.\<close>

definition ts_parse_row_604 :: parse_row where
  "ts_parse_row_604 =
    [(sym_ERR_assign_func_call, 7530), (sym_ERR_unexpected_this_in_path, 2372),
     (sym_ERR_unexpected_super_in_path, 2372), (sym_ERR_fb_variables_after_method, 1709),
     (sym_ERR_var_access_not_allowed, 3160), (sym_ERR_var_config_not_allowed, 3160),
     (sym_ERR_var_global_not_allowed, 3160), (sym_ERR_method_decl_in_body, 3150),
     (sym_extern_pragma, 7490), (sym_wasm_pragma, 3150), (sym_warn_pragma, 7490),
     (sym_allow_pragma, 3140), (sym_test_pragma, 7490), (sym_once_pragma, 7490),
     (sym_must_call_pragma, 7490), (sym_export_pragma, 7490), (sym_pou_pragma, 7194),
     (sym_direct_variable, 7675), (sym_deref_expression, 2373), (sym_variable, 7599),
     (sym_var_access, 2373), (sym_in_out_decls, 3160), (sym_var_decls, 3160),
     (sym_retain_var_decls, 3160), (sym_temp_var_decls, 3160), (sym_external_var_decls, 3160),
     (sym_global_var_decls, 2947), (sym_loc_partly_var_decl, 3160), (sym__fb_variables, 2347),
     (sym_fb_input_decls, 3160), (sym_fb_output_decls, 3160), (sym_no_retain_var_decls, 3160),
     (sym_fb_body, 9188), (sym_method_decl, 370), (sym_prog_access_decls, 3043), (sym_SFC, 7970),
     (sym_SFC_network, 7612), (sym_initial_step, 7439), (sym_config_init, 3047),
     (sym_variable_access, 7530), (sym_func_call, 2961), (sym_stmt_list, 7970), (sym__stmt, 2024),
     (sym_assign, 3150), (sym_if_stmt, 3150), (sym_case_stmt, 3150), (sym_for_stmt, 3150),
     (sym_while_stmt, 3150), (sym_repeat_stmt, 3150), (sym_raise_stmt, 3150), (sym_try_stmt, 3150),
     (sym_ERR_clause_outside_try, 3150), (sym_begin_path_expression, 2943), (sym_invocation, 2934),
     (sym_any_invocation, 2935), (sym_this_invocation, 2641), (sym_super_invocation, 2641),
     (sym_super_body_invocation, 2935), (sym_path_expression, 2627), (sym_field_expression, 2373),
     (sym_index_expression, 2373), (sym_ladder_diagram, 7970), (sym_fb_diagram, 7970),
     (aux_sym_ERR_fb_variables_after_method_repeat1, 2347), (aux_sym_func_decl_repeat1, 7194),
     (aux_sym_fb_decl_repeat3, 370), (aux_sym_SFC_repeat1, 7612), (aux_sym_stmt_list_repeat1, 2024),
     (aux_sym_ladder_diagram_repeat1, 8009), (aux_sym_fb_diagram_repeat1, 8013),
     (sym_identifier, 298), (aux_sym_ERR_unexpected_this_in_path_token1, 304),
     (aux_sym_ERR_unexpected_super_in_path_token1, 306), (sym_line_comment, 3),
     (anon_sym_LBRACE, 308), (aux_sym_test_pragma_token1, 9), (aux_sym_once_pragma_token1, 11),
     (aux_sym_must_call_pragma_token1, 13), (aux_sym_export_pragma_token1, 15),
     (anon_sym_SEMI, 310), (anon_sym_PERCENT, 312), (aux_sym_input_decls_token1, 314),
     (aux_sym_output_decls_token1, 316), (aux_sym_in_out_decls_token1, 318),
     (aux_sym_var_decls_token1, 320), (aux_sym_temp_var_decls_token1, 322),
     (aux_sym_external_var_decls_token1, 324), (aux_sym_global_var_decls_token1, 326),
     (aux_sym_fb_decl_token4, 1538), (aux_sym_method_decl_token1, 330),
     (aux_sym_prog_access_decls_token1, 332), (aux_sym_initial_step_token1, 334),
     (aux_sym_config_init_token1, 336), (aux_sym__stmt_token1, 340), (aux_sym__stmt_token2, 340),
     (aux_sym__stmt_token3, 340), (aux_sym_if_stmt_token1, 342), (aux_sym_case_stmt_token1, 344),
     (aux_sym_for_stmt_token1, 346), (aux_sym_while_stmt_token1, 348),
     (aux_sym_repeat_stmt_token1, 350), (aux_sym_raise_stmt_token1, 352),
     (aux_sym_try_stmt_token1, 354), (aux_sym_try_stmt_token2, 356),
     (aux_sym_catch_clause_token1, 356), (aux_sym_finally_clause_token1, 356), (sym_ld_rung, 358),
     (sym_fbd_network, 360), (sym_c_style_comment, 3), (sym_pascal_style_comment, 3),
     (sym_pragma, 3)]"

lemma ts_parse_row_604_scan: "row_scan tokens_63_2 0 ts_parse_row_604 = Some (Suc (Suc (Suc (Suc 0))))"
  unfolding ts_parse_row_604_def by simp

text \<open>Lines 123574 to 123686.\<close>

definition ts_parse_row_605 :: parse_row where
  "ts_parse_row_605 =
    [(sym_ERR_assign_func_call, 7530), (sym_ERR_unexpected_this_in_path, 2372),
     (sym_ERR_unexpected_super_in_path, 2372), (sym_ERR_fb_variables_after_method, 1711),
     (sym_ERR_var_access_not_allowed, 3160), (sym_ERR_var_config_not_allowed, 3160),
     (sym_ERR_var_global_not_allowed, 3160), (sym_ERR_method_decl_in_body, 3150),
     (sym_extern_pragma, 7490), (sym_wasm_pragma, 3150), (sym_warn_pragma, 7490),
     (sym_allow_pragma, 3140), (sym_test_pragma, 7490), (sym_once_pragma, 7490),
     (sym_must_call_pragma, 7490), (sym_export_pragma, 7490), (sym_pou_pragma, 7194),
     (sym_direct_variable, 7675), (sym_deref_expression, 2373), (sym_variable, 7599),
     (sym_var_access, 2373), (sym_in_out_decls, 3160), (sym_var_decls, 3160),
     (sym_retain_var_decls, 3160), (sym_temp_var_decls, 3160), (sym_external_var_decls, 3160),
     (sym_global_var_decls, 2947), (sym_loc_partly_var_decl, 3160), (sym__fb_variables, 2343),
     (sym_fb_input_decls, 3160), (sym_fb_output_decls, 3160), (sym_no_retain_var_decls, 3160),
     (sym_fb_body, 9200), (sym_method_decl, 2549), (sym_prog_access_decls, 3043), (sym_SFC, 7970),
     (sym_SFC_network, 7612), (sym_initial_step, 7439), (sym_config_init, 3047),
     (sym_variable_access, 7530), (sym_func_call, 2961), (sym_stmt_list, 7970), (sym__stmt, 2024),
     (sym_assign, 3150), (sym_if_stmt, 3150), (sym_case_stmt, 3150), (sym_for_stmt, 3150),
     (sym_while_stmt, 3150), (sym_repeat_stmt, 3150), (sym_raise_stmt, 3150), (sym_try_stmt, 3150),
     (sym_ERR_clause_outside_try, 3150), (sym_begin_path_expression, 2943), (sym_invocation, 2934),
     (sym_any_invocation, 2935), (sym_this_invocation, 2641), (sym_super_invocation, 2641),
     (sym_super_body_invocation, 2935), (sym_path_expression, 2627), (sym_field_expression, 2373),
     (sym_index_expression, 2373), (sym_ladder_diagram, 7970), (sym_fb_diagram, 7970),
     (aux_sym_ERR_fb_variables_after_method_repeat1, 2343), (aux_sym_func_decl_repeat1, 7194),
     (aux_sym_fb_decl_repeat3, 2549), (aux_sym_SFC_repeat1, 7612),
     (aux_sym_stmt_list_repeat1, 2024), (aux_sym_ladder_diagram_repeat1, 8009),
     (aux_sym_fb_diagram_repeat1, 8013), (sym_identifier, 298),
     (aux_sym_ERR_unexpected_this_in_path_token1, 304),
     (aux_sym_ERR_unexpected_super_in_path_token1, 306), (sym_line_comment, 3),
     (anon_sym_LBRACE, 308), (aux_sym_test_pragma_token1, 9), (aux_sym_once_pragma_token1, 11),
     (aux_sym_must_call_pragma_token1, 13), (aux_sym_export_pragma_token1, 15),
     (anon_sym_SEMI, 310), (anon_sym_PERCENT, 312), (aux_sym_input_decls_token1, 314),
     (aux_sym_output_decls_token1, 316), (aux_sym_in_out_decls_token1, 318),
     (aux_sym_var_decls_token1, 320), (aux_sym_temp_var_decls_token1, 322),
     (aux_sym_external_var_decls_token1, 324), (aux_sym_global_var_decls_token1, 326),
     (aux_sym_fb_decl_token4, 1540), (aux_sym_method_decl_token1, 330),
     (aux_sym_prog_access_decls_token1, 332), (aux_sym_initial_step_token1, 334),
     (aux_sym_config_init_token1, 336), (aux_sym__stmt_token1, 340), (aux_sym__stmt_token2, 340),
     (aux_sym__stmt_token3, 340), (aux_sym_if_stmt_token1, 342), (aux_sym_case_stmt_token1, 344),
     (aux_sym_for_stmt_token1, 346), (aux_sym_while_stmt_token1, 348),
     (aux_sym_repeat_stmt_token1, 350), (aux_sym_raise_stmt_token1, 352),
     (aux_sym_try_stmt_token1, 354), (aux_sym_try_stmt_token2, 356),
     (aux_sym_catch_clause_token1, 356), (aux_sym_finally_clause_token1, 356), (sym_ld_rung, 358),
     (sym_fbd_network, 360), (sym_c_style_comment, 3), (sym_pascal_style_comment, 3),
     (sym_pragma, 3)]"

lemma ts_parse_row_605_scan: "row_scan tokens_63_2 0 ts_parse_row_605 = Some (Suc (Suc (Suc (Suc 0))))"
  unfolding ts_parse_row_605_def by simp

text \<open>Lines 123687 to 123799.\<close>

definition ts_parse_row_606 :: parse_row where
  "ts_parse_row_606 =
    [(sym_ERR_assign_func_call, 7530), (sym_ERR_unexpected_this_in_path, 2372),
     (sym_ERR_unexpected_super_in_path, 2372), (sym_ERR_fb_variables_after_method, 1545),
     (sym_ERR_var_access_not_allowed, 3160), (sym_ERR_var_config_not_allowed, 3160),
     (sym_ERR_var_global_not_allowed, 3160), (sym_ERR_method_decl_in_body, 3150),
     (sym_extern_pragma, 7490), (sym_wasm_pragma, 3150), (sym_warn_pragma, 7490),
     (sym_allow_pragma, 3140), (sym_test_pragma, 7490), (sym_once_pragma, 7490),
     (sym_must_call_pragma, 7490), (sym_export_pragma, 7490), (sym_pou_pragma, 7194),
     (sym_direct_variable, 7675), (sym_deref_expression, 2373), (sym_variable, 7599),
     (sym_var_access, 2373), (sym_in_out_decls, 3160), (sym_var_decls, 3160),
     (sym_retain_var_decls, 3160), (sym_temp_var_decls, 3160), (sym_external_var_decls, 3160),
     (sym_global_var_decls, 2947), (sym_loc_partly_var_decl, 3160), (sym__fb_variables, 2343),
     (sym_fb_input_decls, 3160), (sym_fb_output_decls, 3160), (sym_no_retain_var_decls, 3160),
     (sym_fb_body, 9157), (sym_method_decl, 2549), (sym_prog_access_decls, 3043), (sym_SFC, 7970),
     (sym_SFC_network, 7612), (sym_initial_step, 7439), (sym_config_init, 3047),
     (sym_variable_access, 7530), (sym_func_call, 2961), (sym_stmt_list, 7970), (sym__stmt, 2024),
     (sym_assign, 3150), (sym_if_stmt, 3150), (sym_case_stmt, 3150), (sym_for_stmt, 3150),
     (sym_while_stmt, 3150), (sym_repeat_stmt, 3150), (sym_raise_stmt, 3150), (sym_try_stmt, 3150),
     (sym_ERR_clause_outside_try, 3150), (sym_begin_path_expression, 2943), (sym_invocation, 2934),
     (sym_any_invocation, 2935), (sym_this_invocation, 2641), (sym_super_invocation, 2641),
     (sym_super_body_invocation, 2935), (sym_path_expression, 2627), (sym_field_expression, 2373),
     (sym_index_expression, 2373), (sym_ladder_diagram, 7970), (sym_fb_diagram, 7970),
     (aux_sym_ERR_fb_variables_after_method_repeat1, 2343), (aux_sym_func_decl_repeat1, 7194),
     (aux_sym_fb_decl_repeat3, 2549), (aux_sym_SFC_repeat1, 7612),
     (aux_sym_stmt_list_repeat1, 2024), (aux_sym_ladder_diagram_repeat1, 8009),
     (aux_sym_fb_diagram_repeat1, 8013), (sym_identifier, 298),
     (aux_sym_ERR_unexpected_this_in_path_token1, 304),
     (aux_sym_ERR_unexpected_super_in_path_token1, 306), (sym_line_comment, 3),
     (anon_sym_LBRACE, 308), (aux_sym_test_pragma_token1, 9), (aux_sym_once_pragma_token1, 11),
     (aux_sym_must_call_pragma_token1, 13), (aux_sym_export_pragma_token1, 15),
     (anon_sym_SEMI, 310), (anon_sym_PERCENT, 312), (aux_sym_input_decls_token1, 314),
     (aux_sym_output_decls_token1, 316), (aux_sym_in_out_decls_token1, 318),
     (aux_sym_var_decls_token1, 320), (aux_sym_temp_var_decls_token1, 322),
     (aux_sym_external_var_decls_token1, 324), (aux_sym_global_var_decls_token1, 326),
     (aux_sym_fb_decl_token4, 1542), (aux_sym_method_decl_token1, 330),
     (aux_sym_prog_access_decls_token1, 332), (aux_sym_initial_step_token1, 334),
     (aux_sym_config_init_token1, 336), (aux_sym__stmt_token1, 340), (aux_sym__stmt_token2, 340),
     (aux_sym__stmt_token3, 340), (aux_sym_if_stmt_token1, 342), (aux_sym_case_stmt_token1, 344),
     (aux_sym_for_stmt_token1, 346), (aux_sym_while_stmt_token1, 348),
     (aux_sym_repeat_stmt_token1, 350), (aux_sym_raise_stmt_token1, 352),
     (aux_sym_try_stmt_token1, 354), (aux_sym_try_stmt_token2, 356),
     (aux_sym_catch_clause_token1, 356), (aux_sym_finally_clause_token1, 356), (sym_ld_rung, 358),
     (sym_fbd_network, 360), (sym_c_style_comment, 3), (sym_pascal_style_comment, 3),
     (sym_pragma, 3)]"

lemma ts_parse_row_606_scan: "row_scan tokens_63_2 0 ts_parse_row_606 = Some (Suc (Suc (Suc (Suc 0))))"
  unfolding ts_parse_row_606_def by simp

text \<open>Lines 123800 to 123912.\<close>

definition ts_parse_row_607 :: parse_row where
  "ts_parse_row_607 =
    [(sym_ERR_assign_func_call, 7530), (sym_ERR_unexpected_this_in_path, 2372),
     (sym_ERR_unexpected_super_in_path, 2372), (sym_ERR_fb_variables_after_method, 1546),
     (sym_ERR_var_access_not_allowed, 3160), (sym_ERR_var_config_not_allowed, 3160),
     (sym_ERR_var_global_not_allowed, 3160), (sym_ERR_method_decl_in_body, 3150),
     (sym_extern_pragma, 7490), (sym_wasm_pragma, 3150), (sym_warn_pragma, 7490),
     (sym_allow_pragma, 3140), (sym_test_pragma, 7490), (sym_once_pragma, 7490),
     (sym_must_call_pragma, 7490), (sym_export_pragma, 7490), (sym_pou_pragma, 7194),
     (sym_direct_variable, 7675), (sym_deref_expression, 2373), (sym_variable, 7599),
     (sym_var_access, 2373), (sym_in_out_decls, 3160), (sym_var_decls, 3160),
     (sym_retain_var_decls, 3160), (sym_temp_var_decls, 3160), (sym_external_var_decls, 3160),
     (sym_global_var_decls, 2947), (sym_loc_partly_var_decl, 3160), (sym__fb_variables, 2343),
     (sym_fb_input_decls, 3160), (sym_fb_output_decls, 3160), (sym_no_retain_var_decls, 3160),
     (sym_fb_body, 9170), (sym_method_decl, 2549), (sym_prog_access_decls, 3043), (sym_SFC, 7970),
     (sym_SFC_network, 7612), (sym_initial_step, 7439), (sym_config_init, 3047),
     (sym_variable_access, 7530), (sym_func_call, 2961), (sym_stmt_list, 7970), (sym__stmt, 2024),
     (sym_assign, 3150), (sym_if_stmt, 3150), (sym_case_stmt, 3150), (sym_for_stmt, 3150),
     (sym_while_stmt, 3150), (sym_repeat_stmt, 3150), (sym_raise_stmt, 3150), (sym_try_stmt, 3150),
     (sym_ERR_clause_outside_try, 3150), (sym_begin_path_expression, 2943), (sym_invocation, 2934),
     (sym_any_invocation, 2935), (sym_this_invocation, 2641), (sym_super_invocation, 2641),
     (sym_super_body_invocation, 2935), (sym_path_expression, 2627), (sym_field_expression, 2373),
     (sym_index_expression, 2373), (sym_ladder_diagram, 7970), (sym_fb_diagram, 7970),
     (aux_sym_ERR_fb_variables_after_method_repeat1, 2343), (aux_sym_func_decl_repeat1, 7194),
     (aux_sym_fb_decl_repeat3, 2549), (aux_sym_SFC_repeat1, 7612),
     (aux_sym_stmt_list_repeat1, 2024), (aux_sym_ladder_diagram_repeat1, 8009),
     (aux_sym_fb_diagram_repeat1, 8013), (sym_identifier, 298),
     (aux_sym_ERR_unexpected_this_in_path_token1, 304),
     (aux_sym_ERR_unexpected_super_in_path_token1, 306), (sym_line_comment, 3),
     (anon_sym_LBRACE, 308), (aux_sym_test_pragma_token1, 9), (aux_sym_once_pragma_token1, 11),
     (aux_sym_must_call_pragma_token1, 13), (aux_sym_export_pragma_token1, 15),
     (anon_sym_SEMI, 310), (anon_sym_PERCENT, 312), (aux_sym_input_decls_token1, 314),
     (aux_sym_output_decls_token1, 316), (aux_sym_in_out_decls_token1, 318),
     (aux_sym_var_decls_token1, 320), (aux_sym_temp_var_decls_token1, 322),
     (aux_sym_external_var_decls_token1, 324), (aux_sym_global_var_decls_token1, 326),
     (aux_sym_fb_decl_token4, 1544), (aux_sym_method_decl_token1, 330),
     (aux_sym_prog_access_decls_token1, 332), (aux_sym_initial_step_token1, 334),
     (aux_sym_config_init_token1, 336), (aux_sym__stmt_token1, 340), (aux_sym__stmt_token2, 340),
     (aux_sym__stmt_token3, 340), (aux_sym_if_stmt_token1, 342), (aux_sym_case_stmt_token1, 344),
     (aux_sym_for_stmt_token1, 346), (aux_sym_while_stmt_token1, 348),
     (aux_sym_repeat_stmt_token1, 350), (aux_sym_raise_stmt_token1, 352),
     (aux_sym_try_stmt_token1, 354), (aux_sym_try_stmt_token2, 356),
     (aux_sym_catch_clause_token1, 356), (aux_sym_finally_clause_token1, 356), (sym_ld_rung, 358),
     (sym_fbd_network, 360), (sym_c_style_comment, 3), (sym_pascal_style_comment, 3),
     (sym_pragma, 3)]"

lemma ts_parse_row_607_scan: "row_scan tokens_63_2 0 ts_parse_row_607 = Some (Suc (Suc (Suc (Suc 0))))"
  unfolding ts_parse_row_607_def by simp

text \<open>Lines 123913 to 124025.\<close>

definition ts_parse_row_608 :: parse_row where
  "ts_parse_row_608 =
    [(sym_ERR_assign_func_call, 7530), (sym_ERR_unexpected_this_in_path, 2372),
     (sym_ERR_unexpected_super_in_path, 2372), (sym_ERR_fb_variables_after_method, 1712),
     (sym_ERR_var_access_not_allowed, 3160), (sym_ERR_var_config_not_allowed, 3160),
     (sym_ERR_var_global_not_allowed, 3160), (sym_ERR_method_decl_in_body, 3150),
     (sym_extern_pragma, 7490), (sym_wasm_pragma, 3150), (sym_warn_pragma, 7490),
     (sym_allow_pragma, 3140), (sym_test_pragma, 7490), (sym_once_pragma, 7490),
     (sym_must_call_pragma, 7490), (sym_export_pragma, 7490), (sym_pou_pragma, 7194),
     (sym_direct_variable, 7675), (sym_deref_expression, 2373), (sym_variable, 7599),
     (sym_var_access, 2373), (sym_in_out_decls, 3160), (sym_var_decls, 3160),
     (sym_retain_var_decls, 3160), (sym_temp_var_decls, 3160), (sym_external_var_decls, 3160),
     (sym_global_var_decls, 2947), (sym_loc_partly_var_decl, 3160), (sym__fb_variables, 2347),
     (sym_fb_input_decls, 3160), (sym_fb_output_decls, 3160), (sym_no_retain_var_decls, 3160),
     (sym_fb_body, 9230), (sym_method_decl, 371), (sym_prog_access_decls, 3043), (sym_SFC, 7970),
     (sym_SFC_network, 7612), (sym_initial_step, 7439), (sym_config_init, 3047),
     (sym_variable_access, 7530), (sym_func_call, 2961), (sym_stmt_list, 7970), (sym__stmt, 2024),
     (sym_assign, 3150), (sym_if_stmt, 3150), (sym_case_stmt, 3150), (sym_for_stmt, 3150),
     (sym_while_stmt, 3150), (sym_repeat_stmt, 3150), (sym_raise_stmt, 3150), (sym_try_stmt, 3150),
     (sym_ERR_clause_outside_try, 3150), (sym_begin_path_expression, 2943), (sym_invocation, 2934),
     (sym_any_invocation, 2935), (sym_this_invocation, 2641), (sym_super_invocation, 2641),
     (sym_super_body_invocation, 2935), (sym_path_expression, 2627), (sym_field_expression, 2373),
     (sym_index_expression, 2373), (sym_ladder_diagram, 7970), (sym_fb_diagram, 7970),
     (aux_sym_ERR_fb_variables_after_method_repeat1, 2347), (aux_sym_func_decl_repeat1, 7194),
     (aux_sym_fb_decl_repeat3, 371), (aux_sym_SFC_repeat1, 7612), (aux_sym_stmt_list_repeat1, 2024),
     (aux_sym_ladder_diagram_repeat1, 8009), (aux_sym_fb_diagram_repeat1, 8013),
     (sym_identifier, 298), (aux_sym_ERR_unexpected_this_in_path_token1, 304),
     (aux_sym_ERR_unexpected_super_in_path_token1, 306), (sym_line_comment, 3),
     (anon_sym_LBRACE, 308), (aux_sym_test_pragma_token1, 9), (aux_sym_once_pragma_token1, 11),
     (aux_sym_must_call_pragma_token1, 13), (aux_sym_export_pragma_token1, 15),
     (anon_sym_SEMI, 310), (anon_sym_PERCENT, 312), (aux_sym_input_decls_token1, 314),
     (aux_sym_output_decls_token1, 316), (aux_sym_in_out_decls_token1, 318),
     (aux_sym_var_decls_token1, 320), (aux_sym_temp_var_decls_token1, 322),
     (aux_sym_external_var_decls_token1, 324), (aux_sym_global_var_decls_token1, 326),
     (aux_sym_fb_decl_token4, 1546), (aux_sym_method_decl_token1, 330),
     (aux_sym_prog_access_decls_token1, 332), (aux_sym_initial_step_token1, 334),
     (aux_sym_config_init_token1, 336), (aux_sym__stmt_token1, 340), (aux_sym__stmt_token2, 340),
     (aux_sym__stmt_token3, 340), (aux_sym_if_stmt_token1, 342), (aux_sym_case_stmt_token1, 344),
     (aux_sym_for_stmt_token1, 346), (aux_sym_while_stmt_token1, 348),
     (aux_sym_repeat_stmt_token1, 350), (aux_sym_raise_stmt_token1, 352),
     (aux_sym_try_stmt_token1, 354), (aux_sym_try_stmt_token2, 356),
     (aux_sym_catch_clause_token1, 356), (aux_sym_finally_clause_token1, 356), (sym_ld_rung, 358),
     (sym_fbd_network, 360), (sym_c_style_comment, 3), (sym_pascal_style_comment, 3),
     (sym_pragma, 3)]"

lemma ts_parse_row_608_scan: "row_scan tokens_63_2 0 ts_parse_row_608 = Some (Suc (Suc (Suc (Suc 0))))"
  unfolding ts_parse_row_608_def by simp

text \<open>Lines 124026 to 124138.\<close>

definition ts_parse_row_609 :: parse_row where
  "ts_parse_row_609 =
    [(sym_ERR_assign_func_call, 7530), (sym_ERR_unexpected_this_in_path, 2372),
     (sym_ERR_unexpected_super_in_path, 2372), (sym_ERR_fb_variables_after_method, 1548),
     (sym_ERR_var_access_not_allowed, 3160), (sym_ERR_var_config_not_allowed, 3160),
     (sym_ERR_var_global_not_allowed, 3160), (sym_ERR_method_decl_in_body, 3150),
     (sym_extern_pragma, 7490), (sym_wasm_pragma, 3150), (sym_warn_pragma, 7490),
     (sym_allow_pragma, 3140), (sym_test_pragma, 7490), (sym_once_pragma, 7490),
     (sym_must_call_pragma, 7490), (sym_export_pragma, 7490), (sym_pou_pragma, 7194),
     (sym_direct_variable, 7675), (sym_deref_expression, 2373), (sym_variable, 7599),
     (sym_var_access, 2373), (sym_in_out_decls, 3160), (sym_var_decls, 3160),
     (sym_retain_var_decls, 3160), (sym_temp_var_decls, 3160), (sym_external_var_decls, 3160),
     (sym_global_var_decls, 2947), (sym_loc_partly_var_decl, 3160), (sym__fb_variables, 2343),
     (sym_fb_input_decls, 3160), (sym_fb_output_decls, 3160), (sym_no_retain_var_decls, 3160),
     (sym_fb_body, 9191), (sym_method_decl, 2549), (sym_prog_access_decls, 3043), (sym_SFC, 7970),
     (sym_SFC_network, 7612), (sym_initial_step, 7439), (sym_config_init, 3047),
     (sym_variable_access, 7530), (sym_func_call, 2961), (sym_stmt_list, 7970), (sym__stmt, 2024),
     (sym_assign, 3150), (sym_if_stmt, 3150), (sym_case_stmt, 3150), (sym_for_stmt, 3150),
     (sym_while_stmt, 3150), (sym_repeat_stmt, 3150), (sym_raise_stmt, 3150), (sym_try_stmt, 3150),
     (sym_ERR_clause_outside_try, 3150), (sym_begin_path_expression, 2943), (sym_invocation, 2934),
     (sym_any_invocation, 2935), (sym_this_invocation, 2641), (sym_super_invocation, 2641),
     (sym_super_body_invocation, 2935), (sym_path_expression, 2627), (sym_field_expression, 2373),
     (sym_index_expression, 2373), (sym_ladder_diagram, 7970), (sym_fb_diagram, 7970),
     (aux_sym_ERR_fb_variables_after_method_repeat1, 2343), (aux_sym_func_decl_repeat1, 7194),
     (aux_sym_fb_decl_repeat3, 2549), (aux_sym_SFC_repeat1, 7612),
     (aux_sym_stmt_list_repeat1, 2024), (aux_sym_ladder_diagram_repeat1, 8009),
     (aux_sym_fb_diagram_repeat1, 8013), (sym_identifier, 298),
     (aux_sym_ERR_unexpected_this_in_path_token1, 304),
     (aux_sym_ERR_unexpected_super_in_path_token1, 306), (sym_line_comment, 3),
     (anon_sym_LBRACE, 308), (aux_sym_test_pragma_token1, 9), (aux_sym_once_pragma_token1, 11),
     (aux_sym_must_call_pragma_token1, 13), (aux_sym_export_pragma_token1, 15),
     (anon_sym_SEMI, 310), (anon_sym_PERCENT, 312), (aux_sym_input_decls_token1, 314),
     (aux_sym_output_decls_token1, 316), (aux_sym_in_out_decls_token1, 318),
     (aux_sym_var_decls_token1, 320), (aux_sym_temp_var_decls_token1, 322),
     (aux_sym_external_var_decls_token1, 324), (aux_sym_global_var_decls_token1, 326),
     (aux_sym_fb_decl_token4, 1548), (aux_sym_method_decl_token1, 330),
     (aux_sym_prog_access_decls_token1, 332), (aux_sym_initial_step_token1, 334),
     (aux_sym_config_init_token1, 336), (aux_sym__stmt_token1, 340), (aux_sym__stmt_token2, 340),
     (aux_sym__stmt_token3, 340), (aux_sym_if_stmt_token1, 342), (aux_sym_case_stmt_token1, 344),
     (aux_sym_for_stmt_token1, 346), (aux_sym_while_stmt_token1, 348),
     (aux_sym_repeat_stmt_token1, 350), (aux_sym_raise_stmt_token1, 352),
     (aux_sym_try_stmt_token1, 354), (aux_sym_try_stmt_token2, 356),
     (aux_sym_catch_clause_token1, 356), (aux_sym_finally_clause_token1, 356), (sym_ld_rung, 358),
     (sym_fbd_network, 360), (sym_c_style_comment, 3), (sym_pascal_style_comment, 3),
     (sym_pragma, 3)]"

lemma ts_parse_row_609_scan: "row_scan tokens_63_2 0 ts_parse_row_609 = Some (Suc (Suc (Suc (Suc 0))))"
  unfolding ts_parse_row_609_def by simp

text \<open>Lines 124139 to 124251.\<close>

definition ts_parse_row_610 :: parse_row where
  "ts_parse_row_610 =
    [(sym_ERR_assign_func_call, 7530), (sym_ERR_unexpected_this_in_path, 2372),
     (sym_ERR_unexpected_super_in_path, 2372), (sym_ERR_fb_variables_after_method, 1549),
     (sym_ERR_var_access_not_allowed, 3160), (sym_ERR_var_config_not_allowed, 3160),
     (sym_ERR_var_global_not_allowed, 3160), (sym_ERR_method_decl_in_body, 3150),
     (sym_extern_pragma, 7490), (sym_wasm_pragma, 3150), (sym_warn_pragma, 7490),
     (sym_allow_pragma, 3140), (sym_test_pragma, 7490), (sym_once_pragma, 7490),
     (sym_must_call_pragma, 7490), (sym_export_pragma, 7490), (sym_pou_pragma, 7194),
     (sym_direct_variable, 7675), (sym_deref_expression, 2373), (sym_variable, 7599),
     (sym_var_access, 2373), (sym_in_out_decls, 3160), (sym_var_decls, 3160),
     (sym_retain_var_decls, 3160), (sym_temp_var_decls, 3160), (sym_external_var_decls, 3160),
     (sym_global_var_decls, 2947), (sym_loc_partly_var_decl, 3160), (sym__fb_variables, 2347),
     (sym_fb_input_decls, 3160), (sym_fb_output_decls, 3160), (sym_no_retain_var_decls, 3160),
     (sym_fb_body, 9199), (sym_method_decl, 731), (sym_prog_access_decls, 3043), (sym_SFC, 7970),
     (sym_SFC_network, 7612), (sym_initial_step, 7439), (sym_config_init, 3047),
     (sym_variable_access, 7530), (sym_func_call, 2961), (sym_stmt_list, 7970), (sym__stmt, 2024),
     (sym_assign, 3150), (sym_if_stmt, 3150), (sym_case_stmt, 3150), (sym_for_stmt, 3150),
     (sym_while_stmt, 3150), (sym_repeat_stmt, 3150), (sym_raise_stmt, 3150), (sym_try_stmt, 3150),
     (sym_ERR_clause_outside_try, 3150), (sym_begin_path_expression, 2943), (sym_invocation, 2934),
     (sym_any_invocation, 2935), (sym_this_invocation, 2641), (sym_super_invocation, 2641),
     (sym_super_body_invocation, 2935), (sym_path_expression, 2627), (sym_field_expression, 2373),
     (sym_index_expression, 2373), (sym_ladder_diagram, 7970), (sym_fb_diagram, 7970),
     (aux_sym_ERR_fb_variables_after_method_repeat1, 2347), (aux_sym_func_decl_repeat1, 7194),
     (aux_sym_fb_decl_repeat3, 731), (aux_sym_SFC_repeat1, 7612), (aux_sym_stmt_list_repeat1, 2024),
     (aux_sym_ladder_diagram_repeat1, 8009), (aux_sym_fb_diagram_repeat1, 8013),
     (sym_identifier, 298), (aux_sym_ERR_unexpected_this_in_path_token1, 304),
     (aux_sym_ERR_unexpected_super_in_path_token1, 306), (sym_line_comment, 3),
     (anon_sym_LBRACE, 308), (aux_sym_test_pragma_token1, 9), (aux_sym_once_pragma_token1, 11),
     (aux_sym_must_call_pragma_token1, 13), (aux_sym_export_pragma_token1, 15),
     (anon_sym_SEMI, 310), (anon_sym_PERCENT, 312), (aux_sym_input_decls_token1, 314),
     (aux_sym_output_decls_token1, 316), (aux_sym_in_out_decls_token1, 318),
     (aux_sym_var_decls_token1, 320), (aux_sym_temp_var_decls_token1, 322),
     (aux_sym_external_var_decls_token1, 324), (aux_sym_global_var_decls_token1, 326),
     (aux_sym_fb_decl_token4, 1550), (aux_sym_method_decl_token1, 330),
     (aux_sym_prog_access_decls_token1, 332), (aux_sym_initial_step_token1, 334),
     (aux_sym_config_init_token1, 336), (aux_sym__stmt_token1, 340), (aux_sym__stmt_token2, 340),
     (aux_sym__stmt_token3, 340), (aux_sym_if_stmt_token1, 342), (aux_sym_case_stmt_token1, 344),
     (aux_sym_for_stmt_token1, 346), (aux_sym_while_stmt_token1, 348),
     (aux_sym_repeat_stmt_token1, 350), (aux_sym_raise_stmt_token1, 352),
     (aux_sym_try_stmt_token1, 354), (aux_sym_try_stmt_token2, 356),
     (aux_sym_catch_clause_token1, 356), (aux_sym_finally_clause_token1, 356), (sym_ld_rung, 358),
     (sym_fbd_network, 360), (sym_c_style_comment, 3), (sym_pascal_style_comment, 3),
     (sym_pragma, 3)]"

lemma ts_parse_row_610_scan: "row_scan tokens_63_2 0 ts_parse_row_610 = Some (Suc (Suc (Suc (Suc 0))))"
  unfolding ts_parse_row_610_def by simp

text \<open>Lines 124252 to 124364.\<close>

definition ts_parse_row_611 :: parse_row where
  "ts_parse_row_611 =
    [(sym_ERR_assign_func_call, 7530), (sym_ERR_unexpected_this_in_path, 2372),
     (sym_ERR_unexpected_super_in_path, 2372), (sym_ERR_fb_variables_after_method, 1550),
     (sym_ERR_var_access_not_allowed, 3160), (sym_ERR_var_config_not_allowed, 3160),
     (sym_ERR_var_global_not_allowed, 3160), (sym_ERR_method_decl_in_body, 3150),
     (sym_extern_pragma, 7490), (sym_wasm_pragma, 3150), (sym_warn_pragma, 7490),
     (sym_allow_pragma, 3140), (sym_test_pragma, 7490), (sym_once_pragma, 7490),
     (sym_must_call_pragma, 7490), (sym_export_pragma, 7490), (sym_pou_pragma, 7194),
     (sym_direct_variable, 7675), (sym_deref_expression, 2373), (sym_variable, 7599),
     (sym_var_access, 2373), (sym_in_out_decls, 3160), (sym_var_decls, 3160),
     (sym_retain_var_decls, 3160), (sym_temp_var_decls, 3160), (sym_external_var_decls, 3160),
     (sym_global_var_decls, 2947), (sym_loc_partly_var_decl, 3160), (sym__fb_variables, 2343),
     (sym_fb_input_decls, 3160), (sym_fb_output_decls, 3160), (sym_no_retain_var_decls, 3160),
     (sym_fb_body, 9203), (sym_method_decl, 2549), (sym_prog_access_decls, 3043), (sym_SFC, 7970),
     (sym_SFC_network, 7612), (sym_initial_step, 7439), (sym_config_init, 3047),
     (sym_variable_access, 7530), (sym_func_call, 2961), (sym_stmt_list, 7970), (sym__stmt, 2024),
     (sym_assign, 3150), (sym_if_stmt, 3150), (sym_case_stmt, 3150), (sym_for_stmt, 3150),
     (sym_while_stmt, 3150), (sym_repeat_stmt, 3150), (sym_raise_stmt, 3150), (sym_try_stmt, 3150),
     (sym_ERR_clause_outside_try, 3150), (sym_begin_path_expression, 2943), (sym_invocation, 2934),
     (sym_any_invocation, 2935), (sym_this_invocation, 2641), (sym_super_invocation, 2641),
     (sym_super_body_invocation, 2935), (sym_path_expression, 2627), (sym_field_expression, 2373),
     (sym_index_expression, 2373), (sym_ladder_diagram, 7970), (sym_fb_diagram, 7970),
     (aux_sym_ERR_fb_variables_after_method_repeat1, 2343), (aux_sym_func_decl_repeat1, 7194),
     (aux_sym_fb_decl_repeat3, 2549), (aux_sym_SFC_repeat1, 7612),
     (aux_sym_stmt_list_repeat1, 2024), (aux_sym_ladder_diagram_repeat1, 8009),
     (aux_sym_fb_diagram_repeat1, 8013), (sym_identifier, 298),
     (aux_sym_ERR_unexpected_this_in_path_token1, 304),
     (aux_sym_ERR_unexpected_super_in_path_token1, 306), (sym_line_comment, 3),
     (anon_sym_LBRACE, 308), (aux_sym_test_pragma_token1, 9), (aux_sym_once_pragma_token1, 11),
     (aux_sym_must_call_pragma_token1, 13), (aux_sym_export_pragma_token1, 15),
     (anon_sym_SEMI, 310), (anon_sym_PERCENT, 312), (aux_sym_input_decls_token1, 314),
     (aux_sym_output_decls_token1, 316), (aux_sym_in_out_decls_token1, 318),
     (aux_sym_var_decls_token1, 320), (aux_sym_temp_var_decls_token1, 322),
     (aux_sym_external_var_decls_token1, 324), (aux_sym_global_var_decls_token1, 326),
     (aux_sym_fb_decl_token4, 1552), (aux_sym_method_decl_token1, 330),
     (aux_sym_prog_access_decls_token1, 332), (aux_sym_initial_step_token1, 334),
     (aux_sym_config_init_token1, 336), (aux_sym__stmt_token1, 340), (aux_sym__stmt_token2, 340),
     (aux_sym__stmt_token3, 340), (aux_sym_if_stmt_token1, 342), (aux_sym_case_stmt_token1, 344),
     (aux_sym_for_stmt_token1, 346), (aux_sym_while_stmt_token1, 348),
     (aux_sym_repeat_stmt_token1, 350), (aux_sym_raise_stmt_token1, 352),
     (aux_sym_try_stmt_token1, 354), (aux_sym_try_stmt_token2, 356),
     (aux_sym_catch_clause_token1, 356), (aux_sym_finally_clause_token1, 356), (sym_ld_rung, 358),
     (sym_fbd_network, 360), (sym_c_style_comment, 3), (sym_pascal_style_comment, 3),
     (sym_pragma, 3)]"

lemma ts_parse_row_611_scan: "row_scan tokens_63_2 0 ts_parse_row_611 = Some (Suc (Suc (Suc (Suc 0))))"
  unfolding ts_parse_row_611_def by simp

text \<open>Lines 124365 to 124477.\<close>

definition ts_parse_row_612 :: parse_row where
  "ts_parse_row_612 =
    [(sym_ERR_assign_func_call, 7530), (sym_ERR_unexpected_this_in_path, 2372),
     (sym_ERR_unexpected_super_in_path, 2372), (sym_ERR_fb_variables_after_method, 1551),
     (sym_ERR_var_access_not_allowed, 3160), (sym_ERR_var_config_not_allowed, 3160),
     (sym_ERR_var_global_not_allowed, 3160), (sym_ERR_method_decl_in_body, 3150),
     (sym_extern_pragma, 7490), (sym_wasm_pragma, 3150), (sym_warn_pragma, 7490),
     (sym_allow_pragma, 3140), (sym_test_pragma, 7490), (sym_once_pragma, 7490),
     (sym_must_call_pragma, 7490), (sym_export_pragma, 7490), (sym_pou_pragma, 7194),
     (sym_direct_variable, 7675), (sym_deref_expression, 2373), (sym_variable, 7599),
     (sym_var_access, 2373), (sym_in_out_decls, 3160), (sym_var_decls, 3160),
     (sym_retain_var_decls, 3160), (sym_temp_var_decls, 3160), (sym_external_var_decls, 3160),
     (sym_global_var_decls, 2947), (sym_loc_partly_var_decl, 3160), (sym__fb_variables, 2347),
     (sym_fb_input_decls, 3160), (sym_fb_output_decls, 3160), (sym_no_retain_var_decls, 3160),
     (sym_fb_body, 9209), (sym_method_decl, 732), (sym_prog_access_decls, 3043), (sym_SFC, 7970),
     (sym_SFC_network, 7612), (sym_initial_step, 7439), (sym_config_init, 3047),
     (sym_variable_access, 7530), (sym_func_call, 2961), (sym_stmt_list, 7970), (sym__stmt, 2024),
     (sym_assign, 3150), (sym_if_stmt, 3150), (sym_case_stmt, 3150), (sym_for_stmt, 3150),
     (sym_while_stmt, 3150), (sym_repeat_stmt, 3150), (sym_raise_stmt, 3150), (sym_try_stmt, 3150),
     (sym_ERR_clause_outside_try, 3150), (sym_begin_path_expression, 2943), (sym_invocation, 2934),
     (sym_any_invocation, 2935), (sym_this_invocation, 2641), (sym_super_invocation, 2641),
     (sym_super_body_invocation, 2935), (sym_path_expression, 2627), (sym_field_expression, 2373),
     (sym_index_expression, 2373), (sym_ladder_diagram, 7970), (sym_fb_diagram, 7970),
     (aux_sym_ERR_fb_variables_after_method_repeat1, 2347), (aux_sym_func_decl_repeat1, 7194),
     (aux_sym_fb_decl_repeat3, 732), (aux_sym_SFC_repeat1, 7612), (aux_sym_stmt_list_repeat1, 2024),
     (aux_sym_ladder_diagram_repeat1, 8009), (aux_sym_fb_diagram_repeat1, 8013),
     (sym_identifier, 298), (aux_sym_ERR_unexpected_this_in_path_token1, 304),
     (aux_sym_ERR_unexpected_super_in_path_token1, 306), (sym_line_comment, 3),
     (anon_sym_LBRACE, 308), (aux_sym_test_pragma_token1, 9), (aux_sym_once_pragma_token1, 11),
     (aux_sym_must_call_pragma_token1, 13), (aux_sym_export_pragma_token1, 15),
     (anon_sym_SEMI, 310), (anon_sym_PERCENT, 312), (aux_sym_input_decls_token1, 314),
     (aux_sym_output_decls_token1, 316), (aux_sym_in_out_decls_token1, 318),
     (aux_sym_var_decls_token1, 320), (aux_sym_temp_var_decls_token1, 322),
     (aux_sym_external_var_decls_token1, 324), (aux_sym_global_var_decls_token1, 326),
     (aux_sym_fb_decl_token4, 1554), (aux_sym_method_decl_token1, 330),
     (aux_sym_prog_access_decls_token1, 332), (aux_sym_initial_step_token1, 334),
     (aux_sym_config_init_token1, 336), (aux_sym__stmt_token1, 340), (aux_sym__stmt_token2, 340),
     (aux_sym__stmt_token3, 340), (aux_sym_if_stmt_token1, 342), (aux_sym_case_stmt_token1, 344),
     (aux_sym_for_stmt_token1, 346), (aux_sym_while_stmt_token1, 348),
     (aux_sym_repeat_stmt_token1, 350), (aux_sym_raise_stmt_token1, 352),
     (aux_sym_try_stmt_token1, 354), (aux_sym_try_stmt_token2, 356),
     (aux_sym_catch_clause_token1, 356), (aux_sym_finally_clause_token1, 356), (sym_ld_rung, 358),
     (sym_fbd_network, 360), (sym_c_style_comment, 3), (sym_pascal_style_comment, 3),
     (sym_pragma, 3)]"

lemma ts_parse_row_612_scan: "row_scan tokens_63_2 0 ts_parse_row_612 = Some (Suc (Suc (Suc (Suc 0))))"
  unfolding ts_parse_row_612_def by simp

text \<open>Lines 124478 to 124590.\<close>

definition ts_parse_row_613 :: parse_row where
  "ts_parse_row_613 =
    [(sym_ERR_assign_func_call, 7530), (sym_ERR_unexpected_this_in_path, 2372),
     (sym_ERR_unexpected_super_in_path, 2372), (sym_ERR_fb_variables_after_method, 1993),
     (sym_ERR_var_access_not_allowed, 3160), (sym_ERR_var_config_not_allowed, 3160),
     (sym_ERR_var_global_not_allowed, 3160), (sym_ERR_method_decl_in_body, 3150),
     (sym_extern_pragma, 7490), (sym_wasm_pragma, 3150), (sym_warn_pragma, 7490),
     (sym_allow_pragma, 3140), (sym_test_pragma, 7490), (sym_once_pragma, 7490),
     (sym_must_call_pragma, 7490), (sym_export_pragma, 7490), (sym_pou_pragma, 7194),
     (sym_direct_variable, 7675), (sym_deref_expression, 2373), (sym_variable, 7599),
     (sym_var_access, 2373), (sym_in_out_decls, 3160), (sym_var_decls, 3160),
     (sym_retain_var_decls, 3160), (sym_temp_var_decls, 3160), (sym_external_var_decls, 3160),
     (sym_global_var_decls, 2947), (sym_loc_partly_var_decl, 3160), (sym__fb_variables, 2343),
     (sym_fb_input_decls, 3160), (sym_fb_output_decls, 3160), (sym_no_retain_var_decls, 3160),
     (sym_fb_body, 8810), (sym_method_decl, 2549), (sym_prog_access_decls, 3043), (sym_SFC, 7970),
     (sym_SFC_network, 7612), (sym_initial_step, 7439), (sym_config_init, 3047),
     (sym_variable_access, 7530), (sym_func_call, 2961), (sym_stmt_list, 7970), (sym__stmt, 2024),
     (sym_assign, 3150), (sym_if_stmt, 3150), (sym_case_stmt, 3150), (sym_for_stmt, 3150),
     (sym_while_stmt, 3150), (sym_repeat_stmt, 3150), (sym_raise_stmt, 3150), (sym_try_stmt, 3150),
     (sym_ERR_clause_outside_try, 3150), (sym_begin_path_expression, 2943), (sym_invocation, 2934),
     (sym_any_invocation, 2935), (sym_this_invocation, 2641), (sym_super_invocation, 2641),
     (sym_super_body_invocation, 2935), (sym_path_expression, 2627), (sym_field_expression, 2373),
     (sym_index_expression, 2373), (sym_ladder_diagram, 7970), (sym_fb_diagram, 7970),
     (aux_sym_ERR_fb_variables_after_method_repeat1, 2343), (aux_sym_func_decl_repeat1, 7194),
     (aux_sym_fb_decl_repeat3, 2549), (aux_sym_SFC_repeat1, 7612),
     (aux_sym_stmt_list_repeat1, 2024), (aux_sym_ladder_diagram_repeat1, 8009),
     (aux_sym_fb_diagram_repeat1, 8013), (sym_identifier, 298),
     (aux_sym_ERR_unexpected_this_in_path_token1, 304),
     (aux_sym_ERR_unexpected_super_in_path_token1, 306), (sym_line_comment, 3),
     (anon_sym_LBRACE, 308), (aux_sym_test_pragma_token1, 9), (aux_sym_once_pragma_token1, 11),
     (aux_sym_must_call_pragma_token1, 13), (aux_sym_export_pragma_token1, 15),
     (anon_sym_SEMI, 310), (anon_sym_PERCENT, 312), (aux_sym_input_decls_token1, 314),
     (aux_sym_output_decls_token1, 316), (aux_sym_in_out_decls_token1, 318),
     (aux_sym_var_decls_token1, 320), (aux_sym_temp_var_decls_token1, 322),
     (aux_sym_external_var_decls_token1, 324), (aux_sym_global_var_decls_token1, 326),
     (aux_sym_fb_decl_token4, 1556), (aux_sym_method_decl_token1, 330),
     (aux_sym_prog_access_decls_token1, 332), (aux_sym_initial_step_token1, 334),
     (aux_sym_config_init_token1, 336), (aux_sym__stmt_token1, 340), (aux_sym__stmt_token2, 340),
     (aux_sym__stmt_token3, 340), (aux_sym_if_stmt_token1, 342), (aux_sym_case_stmt_token1, 344),
     (aux_sym_for_stmt_token1, 346), (aux_sym_while_stmt_token1, 348),
     (aux_sym_repeat_stmt_token1, 350), (aux_sym_raise_stmt_token1, 352),
     (aux_sym_try_stmt_token1, 354), (aux_sym_try_stmt_token2, 356),
     (aux_sym_catch_clause_token1, 356), (aux_sym_finally_clause_token1, 356), (sym_ld_rung, 358),
     (sym_fbd_network, 360), (sym_c_style_comment, 3), (sym_pascal_style_comment, 3),
     (sym_pragma, 3)]"

lemma ts_parse_row_613_scan: "row_scan tokens_63_2 0 ts_parse_row_613 = Some (Suc (Suc (Suc (Suc 0))))"
  unfolding ts_parse_row_613_def by simp

text \<open>Lines 124591 to 124703.\<close>

definition ts_parse_row_614 :: parse_row where
  "ts_parse_row_614 =
    [(sym_ERR_assign_func_call, 7530), (sym_ERR_unexpected_this_in_path, 2372),
     (sym_ERR_unexpected_super_in_path, 2372), (sym_ERR_fb_variables_after_method, 1553),
     (sym_ERR_var_access_not_allowed, 3160), (sym_ERR_var_config_not_allowed, 3160),
     (sym_ERR_var_global_not_allowed, 3160), (sym_ERR_method_decl_in_body, 3150),
     (sym_extern_pragma, 7490), (sym_wasm_pragma, 3150), (sym_warn_pragma, 7490),
     (sym_allow_pragma, 3140), (sym_test_pragma, 7490), (sym_once_pragma, 7490),
     (sym_must_call_pragma, 7490), (sym_export_pragma, 7490), (sym_pou_pragma, 7194),
     (sym_direct_variable, 7675), (sym_deref_expression, 2373), (sym_variable, 7599),
     (sym_var_access, 2373), (sym_in_out_decls, 3160), (sym_var_decls, 3160),
     (sym_retain_var_decls, 3160), (sym_temp_var_decls, 3160), (sym_external_var_decls, 3160),
     (sym_global_var_decls, 2947), (sym_loc_partly_var_decl, 3160), (sym__fb_variables, 2343),
     (sym_fb_input_decls, 3160), (sym_fb_output_decls, 3160), (sym_no_retain_var_decls, 3160),
     (sym_fb_body, 9227), (sym_method_decl, 2549), (sym_prog_access_decls, 3043), (sym_SFC, 7970),
     (sym_SFC_network, 7612), (sym_initial_step, 7439), (sym_config_init, 3047),
     (sym_variable_access, 7530), (sym_func_call, 2961), (sym_stmt_list, 7970), (sym__stmt, 2024),
     (sym_assign, 3150), (sym_if_stmt, 3150), (sym_case_stmt, 3150), (sym_for_stmt, 3150),
     (sym_while_stmt, 3150), (sym_repeat_stmt, 3150), (sym_raise_stmt, 3150), (sym_try_stmt, 3150),
     (sym_ERR_clause_outside_try, 3150), (sym_begin_path_expression, 2943), (sym_invocation, 2934),
     (sym_any_invocation, 2935), (sym_this_invocation, 2641), (sym_super_invocation, 2641),
     (sym_super_body_invocation, 2935), (sym_path_expression, 2627), (sym_field_expression, 2373),
     (sym_index_expression, 2373), (sym_ladder_diagram, 7970), (sym_fb_diagram, 7970),
     (aux_sym_ERR_fb_variables_after_method_repeat1, 2343), (aux_sym_func_decl_repeat1, 7194),
     (aux_sym_fb_decl_repeat3, 2549), (aux_sym_SFC_repeat1, 7612),
     (aux_sym_stmt_list_repeat1, 2024), (aux_sym_ladder_diagram_repeat1, 8009),
     (aux_sym_fb_diagram_repeat1, 8013), (sym_identifier, 298),
     (aux_sym_ERR_unexpected_this_in_path_token1, 304),
     (aux_sym_ERR_unexpected_super_in_path_token1, 306), (sym_line_comment, 3),
     (anon_sym_LBRACE, 308), (aux_sym_test_pragma_token1, 9), (aux_sym_once_pragma_token1, 11),
     (aux_sym_must_call_pragma_token1, 13), (aux_sym_export_pragma_token1, 15),
     (anon_sym_SEMI, 310), (anon_sym_PERCENT, 312), (aux_sym_input_decls_token1, 314),
     (aux_sym_output_decls_token1, 316), (aux_sym_in_out_decls_token1, 318),
     (aux_sym_var_decls_token1, 320), (aux_sym_temp_var_decls_token1, 322),
     (aux_sym_external_var_decls_token1, 324), (aux_sym_global_var_decls_token1, 326),
     (aux_sym_fb_decl_token4, 1558), (aux_sym_method_decl_token1, 330),
     (aux_sym_prog_access_decls_token1, 332), (aux_sym_initial_step_token1, 334),
     (aux_sym_config_init_token1, 336), (aux_sym__stmt_token1, 340), (aux_sym__stmt_token2, 340),
     (aux_sym__stmt_token3, 340), (aux_sym_if_stmt_token1, 342), (aux_sym_case_stmt_token1, 344),
     (aux_sym_for_stmt_token1, 346), (aux_sym_while_stmt_token1, 348),
     (aux_sym_repeat_stmt_token1, 350), (aux_sym_raise_stmt_token1, 352),
     (aux_sym_try_stmt_token1, 354), (aux_sym_try_stmt_token2, 356),
     (aux_sym_catch_clause_token1, 356), (aux_sym_finally_clause_token1, 356), (sym_ld_rung, 358),
     (sym_fbd_network, 360), (sym_c_style_comment, 3), (sym_pascal_style_comment, 3),
     (sym_pragma, 3)]"

lemma ts_parse_row_614_scan: "row_scan tokens_63_2 0 ts_parse_row_614 = Some (Suc (Suc (Suc (Suc 0))))"
  unfolding ts_parse_row_614_def by simp

text \<open>Lines 124704 to 124816.\<close>

definition ts_parse_row_615 :: parse_row where
  "ts_parse_row_615 =
    [(sym_ERR_assign_func_call, 7530), (sym_ERR_unexpected_this_in_path, 2372),
     (sym_ERR_unexpected_super_in_path, 2372), (sym_ERR_fb_variables_after_method, 1554),
     (sym_ERR_var_access_not_allowed, 3160), (sym_ERR_var_config_not_allowed, 3160),
     (sym_ERR_var_global_not_allowed, 3160), (sym_ERR_method_decl_in_body, 3150),
     (sym_extern_pragma, 7490), (sym_wasm_pragma, 3150), (sym_warn_pragma, 7490),
     (sym_allow_pragma, 3140), (sym_test_pragma, 7490), (sym_once_pragma, 7490),
     (sym_must_call_pragma, 7490), (sym_export_pragma, 7490), (sym_pou_pragma, 7194),
     (sym_direct_variable, 7675), (sym_deref_expression, 2373), (sym_variable, 7599),
     (sym_var_access, 2373), (sym_in_out_decls, 3160), (sym_var_decls, 3160),
     (sym_retain_var_decls, 3160), (sym_temp_var_decls, 3160), (sym_external_var_decls, 3160),
     (sym_global_var_decls, 2947), (sym_loc_partly_var_decl, 3160), (sym__fb_variables, 2343),
     (sym_fb_input_decls, 3160), (sym_fb_output_decls, 3160), (sym_no_retain_var_decls, 3160),
     (sym_fb_body, 9241), (sym_method_decl, 2549), (sym_prog_access_decls, 3043), (sym_SFC, 7970),
     (sym_SFC_network, 7612), (sym_initial_step, 7439), (sym_config_init, 3047),
     (sym_variable_access, 7530), (sym_func_call, 2961), (sym_stmt_list, 7970), (sym__stmt, 2024),
     (sym_assign, 3150), (sym_if_stmt, 3150), (sym_case_stmt, 3150), (sym_for_stmt, 3150),
     (sym_while_stmt, 3150), (sym_repeat_stmt, 3150), (sym_raise_stmt, 3150), (sym_try_stmt, 3150),
     (sym_ERR_clause_outside_try, 3150), (sym_begin_path_expression, 2943), (sym_invocation, 2934),
     (sym_any_invocation, 2935), (sym_this_invocation, 2641), (sym_super_invocation, 2641),
     (sym_super_body_invocation, 2935), (sym_path_expression, 2627), (sym_field_expression, 2373),
     (sym_index_expression, 2373), (sym_ladder_diagram, 7970), (sym_fb_diagram, 7970),
     (aux_sym_ERR_fb_variables_after_method_repeat1, 2343), (aux_sym_func_decl_repeat1, 7194),
     (aux_sym_fb_decl_repeat3, 2549), (aux_sym_SFC_repeat1, 7612),
     (aux_sym_stmt_list_repeat1, 2024), (aux_sym_ladder_diagram_repeat1, 8009),
     (aux_sym_fb_diagram_repeat1, 8013), (sym_identifier, 298),
     (aux_sym_ERR_unexpected_this_in_path_token1, 304),
     (aux_sym_ERR_unexpected_super_in_path_token1, 306), (sym_line_comment, 3),
     (anon_sym_LBRACE, 308), (aux_sym_test_pragma_token1, 9), (aux_sym_once_pragma_token1, 11),
     (aux_sym_must_call_pragma_token1, 13), (aux_sym_export_pragma_token1, 15),
     (anon_sym_SEMI, 310), (anon_sym_PERCENT, 312), (aux_sym_input_decls_token1, 314),
     (aux_sym_output_decls_token1, 316), (aux_sym_in_out_decls_token1, 318),
     (aux_sym_var_decls_token1, 320), (aux_sym_temp_var_decls_token1, 322),
     (aux_sym_external_var_decls_token1, 324), (aux_sym_global_var_decls_token1, 326),
     (aux_sym_fb_decl_token4, 1560), (aux_sym_method_decl_token1, 330),
     (aux_sym_prog_access_decls_token1, 332), (aux_sym_initial_step_token1, 334),
     (aux_sym_config_init_token1, 336), (aux_sym__stmt_token1, 340), (aux_sym__stmt_token2, 340),
     (aux_sym__stmt_token3, 340), (aux_sym_if_stmt_token1, 342), (aux_sym_case_stmt_token1, 344),
     (aux_sym_for_stmt_token1, 346), (aux_sym_while_stmt_token1, 348),
     (aux_sym_repeat_stmt_token1, 350), (aux_sym_raise_stmt_token1, 352),
     (aux_sym_try_stmt_token1, 354), (aux_sym_try_stmt_token2, 356),
     (aux_sym_catch_clause_token1, 356), (aux_sym_finally_clause_token1, 356), (sym_ld_rung, 358),
     (sym_fbd_network, 360), (sym_c_style_comment, 3), (sym_pascal_style_comment, 3),
     (sym_pragma, 3)]"

lemma ts_parse_row_615_scan: "row_scan tokens_63_2 0 ts_parse_row_615 = Some (Suc (Suc (Suc (Suc 0))))"
  unfolding ts_parse_row_615_def by simp

text \<open>Lines 124817 to 124929.\<close>

definition ts_parse_row_616 :: parse_row where
  "ts_parse_row_616 =
    [(sym_ERR_assign_func_call, 7530), (sym_ERR_unexpected_this_in_path, 2372),
     (sym_ERR_unexpected_super_in_path, 2372), (sym_ERR_fb_variables_after_method, 1555),
     (sym_ERR_var_access_not_allowed, 3160), (sym_ERR_var_config_not_allowed, 3160),
     (sym_ERR_var_global_not_allowed, 3160), (sym_ERR_method_decl_in_body, 3150),
     (sym_extern_pragma, 7490), (sym_wasm_pragma, 3150), (sym_warn_pragma, 7490),
     (sym_allow_pragma, 3140), (sym_test_pragma, 7490), (sym_once_pragma, 7490),
     (sym_must_call_pragma, 7490), (sym_export_pragma, 7490), (sym_pou_pragma, 7194),
     (sym_direct_variable, 7675), (sym_deref_expression, 2373), (sym_variable, 7599),
     (sym_var_access, 2373), (sym_in_out_decls, 3160), (sym_var_decls, 3160),
     (sym_retain_var_decls, 3160), (sym_temp_var_decls, 3160), (sym_external_var_decls, 3160),
     (sym_global_var_decls, 2947), (sym_loc_partly_var_decl, 3160), (sym__fb_variables, 2347),
     (sym_fb_input_decls, 3160), (sym_fb_output_decls, 3160), (sym_no_retain_var_decls, 3160),
     (sym_fb_body, 9249), (sym_method_decl, 735), (sym_prog_access_decls, 3043), (sym_SFC, 7970),
     (sym_SFC_network, 7612), (sym_initial_step, 7439), (sym_config_init, 3047),
     (sym_variable_access, 7530), (sym_func_call, 2961), (sym_stmt_list, 7970), (sym__stmt, 2024),
     (sym_assign, 3150), (sym_if_stmt, 3150), (sym_case_stmt, 3150), (sym_for_stmt, 3150),
     (sym_while_stmt, 3150), (sym_repeat_stmt, 3150), (sym_raise_stmt, 3150), (sym_try_stmt, 3150),
     (sym_ERR_clause_outside_try, 3150), (sym_begin_path_expression, 2943), (sym_invocation, 2934),
     (sym_any_invocation, 2935), (sym_this_invocation, 2641), (sym_super_invocation, 2641),
     (sym_super_body_invocation, 2935), (sym_path_expression, 2627), (sym_field_expression, 2373),
     (sym_index_expression, 2373), (sym_ladder_diagram, 7970), (sym_fb_diagram, 7970),
     (aux_sym_ERR_fb_variables_after_method_repeat1, 2347), (aux_sym_func_decl_repeat1, 7194),
     (aux_sym_fb_decl_repeat3, 735), (aux_sym_SFC_repeat1, 7612), (aux_sym_stmt_list_repeat1, 2024),
     (aux_sym_ladder_diagram_repeat1, 8009), (aux_sym_fb_diagram_repeat1, 8013),
     (sym_identifier, 298), (aux_sym_ERR_unexpected_this_in_path_token1, 304),
     (aux_sym_ERR_unexpected_super_in_path_token1, 306), (sym_line_comment, 3),
     (anon_sym_LBRACE, 308), (aux_sym_test_pragma_token1, 9), (aux_sym_once_pragma_token1, 11),
     (aux_sym_must_call_pragma_token1, 13), (aux_sym_export_pragma_token1, 15),
     (anon_sym_SEMI, 310), (anon_sym_PERCENT, 312), (aux_sym_input_decls_token1, 314),
     (aux_sym_output_decls_token1, 316), (aux_sym_in_out_decls_token1, 318),
     (aux_sym_var_decls_token1, 320), (aux_sym_temp_var_decls_token1, 322),
     (aux_sym_external_var_decls_token1, 324), (aux_sym_global_var_decls_token1, 326),
     (aux_sym_fb_decl_token4, 1562), (aux_sym_method_decl_token1, 330),
     (aux_sym_prog_access_decls_token1, 332), (aux_sym_initial_step_token1, 334),
     (aux_sym_config_init_token1, 336), (aux_sym__stmt_token1, 340), (aux_sym__stmt_token2, 340),
     (aux_sym__stmt_token3, 340), (aux_sym_if_stmt_token1, 342), (aux_sym_case_stmt_token1, 344),
     (aux_sym_for_stmt_token1, 346), (aux_sym_while_stmt_token1, 348),
     (aux_sym_repeat_stmt_token1, 350), (aux_sym_raise_stmt_token1, 352),
     (aux_sym_try_stmt_token1, 354), (aux_sym_try_stmt_token2, 356),
     (aux_sym_catch_clause_token1, 356), (aux_sym_finally_clause_token1, 356), (sym_ld_rung, 358),
     (sym_fbd_network, 360), (sym_c_style_comment, 3), (sym_pascal_style_comment, 3),
     (sym_pragma, 3)]"

lemma ts_parse_row_616_scan: "row_scan tokens_63_2 0 ts_parse_row_616 = Some (Suc (Suc (Suc (Suc 0))))"
  unfolding ts_parse_row_616_def by simp

text \<open>Lines 124930 to 125042.\<close>

definition ts_parse_row_617 :: parse_row where
  "ts_parse_row_617 =
    [(sym_ERR_assign_func_call, 7530), (sym_ERR_unexpected_this_in_path, 2372),
     (sym_ERR_unexpected_super_in_path, 2372), (sym_ERR_fb_variables_after_method, 1557),
     (sym_ERR_var_access_not_allowed, 3160), (sym_ERR_var_config_not_allowed, 3160),
     (sym_ERR_var_global_not_allowed, 3160), (sym_ERR_method_decl_in_body, 3150),
     (sym_extern_pragma, 7490), (sym_wasm_pragma, 3150), (sym_warn_pragma, 7490),
     (sym_allow_pragma, 3140), (sym_test_pragma, 7490), (sym_once_pragma, 7490),
     (sym_must_call_pragma, 7490), (sym_export_pragma, 7490), (sym_pou_pragma, 7194),
     (sym_direct_variable, 7675), (sym_deref_expression, 2373), (sym_variable, 7599),
     (sym_var_access, 2373), (sym_in_out_decls, 3160), (sym_var_decls, 3160),
     (sym_retain_var_decls, 3160), (sym_temp_var_decls, 3160), (sym_external_var_decls, 3160),
     (sym_global_var_decls, 2947), (sym_loc_partly_var_decl, 3160), (sym__fb_variables, 2343),
     (sym_fb_input_decls, 3160), (sym_fb_output_decls, 3160), (sym_no_retain_var_decls, 3160),
     (sym_fb_body, 9255), (sym_method_decl, 2549), (sym_prog_access_decls, 3043), (sym_SFC, 7970),
     (sym_SFC_network, 7612), (sym_initial_step, 7439), (sym_config_init, 3047),
     (sym_variable_access, 7530), (sym_func_call, 2961), (sym_stmt_list, 7970), (sym__stmt, 2024),
     (sym_assign, 3150), (sym_if_stmt, 3150), (sym_case_stmt, 3150), (sym_for_stmt, 3150),
     (sym_while_stmt, 3150), (sym_repeat_stmt, 3150), (sym_raise_stmt, 3150), (sym_try_stmt, 3150),
     (sym_ERR_clause_outside_try, 3150), (sym_begin_path_expression, 2943), (sym_invocation, 2934),
     (sym_any_invocation, 2935), (sym_this_invocation, 2641), (sym_super_invocation, 2641),
     (sym_super_body_invocation, 2935), (sym_path_expression, 2627), (sym_field_expression, 2373),
     (sym_index_expression, 2373), (sym_ladder_diagram, 7970), (sym_fb_diagram, 7970),
     (aux_sym_ERR_fb_variables_after_method_repeat1, 2343), (aux_sym_func_decl_repeat1, 7194),
     (aux_sym_fb_decl_repeat3, 2549), (aux_sym_SFC_repeat1, 7612),
     (aux_sym_stmt_list_repeat1, 2024), (aux_sym_ladder_diagram_repeat1, 8009),
     (aux_sym_fb_diagram_repeat1, 8013), (sym_identifier, 298),
     (aux_sym_ERR_unexpected_this_in_path_token1, 304),
     (aux_sym_ERR_unexpected_super_in_path_token1, 306), (sym_line_comment, 3),
     (anon_sym_LBRACE, 308), (aux_sym_test_pragma_token1, 9), (aux_sym_once_pragma_token1, 11),
     (aux_sym_must_call_pragma_token1, 13), (aux_sym_export_pragma_token1, 15),
     (anon_sym_SEMI, 310), (anon_sym_PERCENT, 312), (aux_sym_input_decls_token1, 314),
     (aux_sym_output_decls_token1, 316), (aux_sym_in_out_decls_token1, 318),
     (aux_sym_var_decls_token1, 320), (aux_sym_temp_var_decls_token1, 322),
     (aux_sym_external_var_decls_token1, 324), (aux_sym_global_var_decls_token1, 326),
     (aux_sym_fb_decl_token4, 1564), (aux_sym_method_decl_token1, 330),
     (aux_sym_prog_access_decls_token1, 332), (aux_sym_initial_step_token1, 334),
     (aux_sym_config_init_token1, 336), (aux_sym__stmt_token1, 340), (aux_sym__stmt_token2, 340),
     (aux_sym__stmt_token3, 340), (aux_sym_if_stmt_token1, 342), (aux_sym_case_stmt_token1, 344),
     (aux_sym_for_stmt_token1, 346), (aux_sym_while_stmt_token1, 348),
     (aux_sym_repeat_stmt_token1, 350), (aux_sym_raise_stmt_token1, 352),
     (aux_sym_try_stmt_token1, 354), (aux_sym_try_stmt_token2, 356),
     (aux_sym_catch_clause_token1, 356), (aux_sym_finally_clause_token1, 356), (sym_ld_rung, 358),
     (sym_fbd_network, 360), (sym_c_style_comment, 3), (sym_pascal_style_comment, 3),
     (sym_pragma, 3)]"

lemma ts_parse_row_617_scan: "row_scan tokens_63_2 0 ts_parse_row_617 = Some (Suc (Suc (Suc (Suc 0))))"
  unfolding ts_parse_row_617_def by simp

text \<open>Lines 125043 to 125155.\<close>

definition ts_parse_row_618 :: parse_row where
  "ts_parse_row_618 =
    [(sym_ERR_assign_func_call, 7530), (sym_ERR_unexpected_this_in_path, 2372),
     (sym_ERR_unexpected_super_in_path, 2372), (sym_ERR_fb_variables_after_method, 1558),
     (sym_ERR_var_access_not_allowed, 3160), (sym_ERR_var_config_not_allowed, 3160),
     (sym_ERR_var_global_not_allowed, 3160), (sym_ERR_method_decl_in_body, 3150),
     (sym_extern_pragma, 7490), (sym_wasm_pragma, 3150), (sym_warn_pragma, 7490),
     (sym_allow_pragma, 3140), (sym_test_pragma, 7490), (sym_once_pragma, 7490),
     (sym_must_call_pragma, 7490), (sym_export_pragma, 7490), (sym_pou_pragma, 7194),
     (sym_direct_variable, 7675), (sym_deref_expression, 2373), (sym_variable, 7599),
     (sym_var_access, 2373), (sym_in_out_decls, 3160), (sym_var_decls, 3160),
     (sym_retain_var_decls, 3160), (sym_temp_var_decls, 3160), (sym_external_var_decls, 3160),
     (sym_global_var_decls, 2947), (sym_loc_partly_var_decl, 3160), (sym__fb_variables, 2347),
     (sym_fb_input_decls, 3160), (sym_fb_output_decls, 3160), (sym_no_retain_var_decls, 3160),
     (sym_fb_body, 9260), (sym_method_decl, 736), (sym_prog_access_decls, 3043), (sym_SFC, 7970),
     (sym_SFC_network, 7612), (sym_initial_step, 7439), (sym_config_init, 3047),
     (sym_variable_access, 7530), (sym_func_call, 2961), (sym_stmt_list, 7970), (sym__stmt, 2024),
     (sym_assign, 3150), (sym_if_stmt, 3150), (sym_case_stmt, 3150), (sym_for_stmt, 3150),
     (sym_while_stmt, 3150), (sym_repeat_stmt, 3150), (sym_raise_stmt, 3150), (sym_try_stmt, 3150),
     (sym_ERR_clause_outside_try, 3150), (sym_begin_path_expression, 2943), (sym_invocation, 2934),
     (sym_any_invocation, 2935), (sym_this_invocation, 2641), (sym_super_invocation, 2641),
     (sym_super_body_invocation, 2935), (sym_path_expression, 2627), (sym_field_expression, 2373),
     (sym_index_expression, 2373), (sym_ladder_diagram, 7970), (sym_fb_diagram, 7970),
     (aux_sym_ERR_fb_variables_after_method_repeat1, 2347), (aux_sym_func_decl_repeat1, 7194),
     (aux_sym_fb_decl_repeat3, 736), (aux_sym_SFC_repeat1, 7612), (aux_sym_stmt_list_repeat1, 2024),
     (aux_sym_ladder_diagram_repeat1, 8009), (aux_sym_fb_diagram_repeat1, 8013),
     (sym_identifier, 298), (aux_sym_ERR_unexpected_this_in_path_token1, 304),
     (aux_sym_ERR_unexpected_super_in_path_token1, 306), (sym_line_comment, 3),
     (anon_sym_LBRACE, 308), (aux_sym_test_pragma_token1, 9), (aux_sym_once_pragma_token1, 11),
     (aux_sym_must_call_pragma_token1, 13), (aux_sym_export_pragma_token1, 15),
     (anon_sym_SEMI, 310), (anon_sym_PERCENT, 312), (aux_sym_input_decls_token1, 314),
     (aux_sym_output_decls_token1, 316), (aux_sym_in_out_decls_token1, 318),
     (aux_sym_var_decls_token1, 320), (aux_sym_temp_var_decls_token1, 322),
     (aux_sym_external_var_decls_token1, 324), (aux_sym_global_var_decls_token1, 326),
     (aux_sym_fb_decl_token4, 1566), (aux_sym_method_decl_token1, 330),
     (aux_sym_prog_access_decls_token1, 332), (aux_sym_initial_step_token1, 334),
     (aux_sym_config_init_token1, 336), (aux_sym__stmt_token1, 340), (aux_sym__stmt_token2, 340),
     (aux_sym__stmt_token3, 340), (aux_sym_if_stmt_token1, 342), (aux_sym_case_stmt_token1, 344),
     (aux_sym_for_stmt_token1, 346), (aux_sym_while_stmt_token1, 348),
     (aux_sym_repeat_stmt_token1, 350), (aux_sym_raise_stmt_token1, 352),
     (aux_sym_try_stmt_token1, 354), (aux_sym_try_stmt_token2, 356),
     (aux_sym_catch_clause_token1, 356), (aux_sym_finally_clause_token1, 356), (sym_ld_rung, 358),
     (sym_fbd_network, 360), (sym_c_style_comment, 3), (sym_pascal_style_comment, 3),
     (sym_pragma, 3)]"

lemma ts_parse_row_618_scan: "row_scan tokens_63_2 0 ts_parse_row_618 = Some (Suc (Suc (Suc (Suc 0))))"
  unfolding ts_parse_row_618_def by simp

text \<open>Lines 125156 to 125268.\<close>

definition ts_parse_row_619 :: parse_row where
  "ts_parse_row_619 =
    [(sym_ERR_assign_func_call, 7530), (sym_ERR_unexpected_this_in_path, 2372),
     (sym_ERR_unexpected_super_in_path, 2372), (sym_ERR_fb_variables_after_method, 1267),
     (sym_ERR_var_access_not_allowed, 3160), (sym_ERR_var_config_not_allowed, 3160),
     (sym_ERR_var_global_not_allowed, 3160), (sym_ERR_method_decl_in_body, 3150),
     (sym_extern_pragma, 7490), (sym_wasm_pragma, 3150), (sym_warn_pragma, 7490),
     (sym_allow_pragma, 3140), (sym_test_pragma, 7490), (sym_once_pragma, 7490),
     (sym_must_call_pragma, 7490), (sym_export_pragma, 7490), (sym_pou_pragma, 7194),
     (sym_direct_variable, 7675), (sym_deref_expression, 2373), (sym_variable, 7599),
     (sym_var_access, 2373), (sym_in_out_decls, 3160), (sym_var_decls, 3160),
     (sym_retain_var_decls, 3160), (sym_temp_var_decls, 3160), (sym_external_var_decls, 3160),
     (sym_global_var_decls, 2947), (sym_loc_partly_var_decl, 3160), (sym__fb_variables, 2343),
     (sym_fb_input_decls, 3160), (sym_fb_output_decls, 3160), (sym_no_retain_var_decls, 3160),
     (sym_fb_body, 9669), (sym_method_decl, 2549), (sym_prog_access_decls, 3043), (sym_SFC, 7970),
     (sym_SFC_network, 7612), (sym_initial_step, 7439), (sym_config_init, 3047),
     (sym_variable_access, 7530), (sym_func_call, 2961), (sym_stmt_list, 7970), (sym__stmt, 2024),
     (sym_assign, 3150), (sym_if_stmt, 3150), (sym_case_stmt, 3150), (sym_for_stmt, 3150),
     (sym_while_stmt, 3150), (sym_repeat_stmt, 3150), (sym_raise_stmt, 3150), (sym_try_stmt, 3150),
     (sym_ERR_clause_outside_try, 3150), (sym_begin_path_expression, 2943), (sym_invocation, 2934),
     (sym_any_invocation, 2935), (sym_this_invocation, 2641), (sym_super_invocation, 2641),
     (sym_super_body_invocation, 2935), (sym_path_expression, 2627), (sym_field_expression, 2373),
     (sym_index_expression, 2373), (sym_ladder_diagram, 7970), (sym_fb_diagram, 7970),
     (aux_sym_ERR_fb_variables_after_method_repeat1, 2343), (aux_sym_func_decl_repeat1, 7194),
     (aux_sym_fb_decl_repeat3, 2549), (aux_sym_SFC_repeat1, 7612),
     (aux_sym_stmt_list_repeat1, 2024), (aux_sym_ladder_diagram_repeat1, 8009),
     (aux_sym_fb_diagram_repeat1, 8013), (sym_identifier, 298),
     (aux_sym_ERR_unexpected_this_in_path_token1, 304),
     (aux_sym_ERR_unexpected_super_in_path_token1, 306), (sym_line_comment, 3),
     (anon_sym_LBRACE, 308), (aux_sym_test_pragma_token1, 9), (aux_sym_once_pragma_token1, 11),
     (aux_sym_must_call_pragma_token1, 13), (aux_sym_export_pragma_token1, 15),
     (anon_sym_SEMI, 310), (anon_sym_PERCENT, 312), (aux_sym_input_decls_token1, 314),
     (aux_sym_output_decls_token1, 316), (aux_sym_in_out_decls_token1, 318),
     (aux_sym_var_decls_token1, 320), (aux_sym_temp_var_decls_token1, 322),
     (aux_sym_external_var_decls_token1, 324), (aux_sym_global_var_decls_token1, 326),
     (aux_sym_fb_decl_token4, 1568), (aux_sym_method_decl_token1, 330),
     (aux_sym_prog_access_decls_token1, 332), (aux_sym_initial_step_token1, 334),
     (aux_sym_config_init_token1, 336), (aux_sym__stmt_token1, 340), (aux_sym__stmt_token2, 340),
     (aux_sym__stmt_token3, 340), (aux_sym_if_stmt_token1, 342), (aux_sym_case_stmt_token1, 344),
     (aux_sym_for_stmt_token1, 346), (aux_sym_while_stmt_token1, 348),
     (aux_sym_repeat_stmt_token1, 350), (aux_sym_raise_stmt_token1, 352),
     (aux_sym_try_stmt_token1, 354), (aux_sym_try_stmt_token2, 356),
     (aux_sym_catch_clause_token1, 356), (aux_sym_finally_clause_token1, 356), (sym_ld_rung, 358),
     (sym_fbd_network, 360), (sym_c_style_comment, 3), (sym_pascal_style_comment, 3),
     (sym_pragma, 3)]"

lemma ts_parse_row_619_scan: "row_scan tokens_63_2 0 ts_parse_row_619 = Some (Suc (Suc (Suc (Suc 0))))"
  unfolding ts_parse_row_619_def by simp

text \<open>Lines 125269 to 125381.\<close>

definition ts_parse_row_620 :: parse_row where
  "ts_parse_row_620 =
    [(sym_ERR_assign_func_call, 7530), (sym_ERR_unexpected_this_in_path, 2372),
     (sym_ERR_unexpected_super_in_path, 2372), (sym_ERR_fb_variables_after_method, 1561),
     (sym_ERR_var_access_not_allowed, 3160), (sym_ERR_var_config_not_allowed, 3160),
     (sym_ERR_var_global_not_allowed, 3160), (sym_ERR_method_decl_in_body, 3150),
     (sym_extern_pragma, 7490), (sym_wasm_pragma, 3150), (sym_warn_pragma, 7490),
     (sym_allow_pragma, 3140), (sym_test_pragma, 7490), (sym_once_pragma, 7490),
     (sym_must_call_pragma, 7490), (sym_export_pragma, 7490), (sym_pou_pragma, 7194),
     (sym_direct_variable, 7675), (sym_deref_expression, 2373), (sym_variable, 7599),
     (sym_var_access, 2373), (sym_in_out_decls, 3160), (sym_var_decls, 3160),
     (sym_retain_var_decls, 3160), (sym_temp_var_decls, 3160), (sym_external_var_decls, 3160),
     (sym_global_var_decls, 2947), (sym_loc_partly_var_decl, 3160), (sym__fb_variables, 2343),
     (sym_fb_input_decls, 3160), (sym_fb_output_decls, 3160), (sym_no_retain_var_decls, 3160),
     (sym_fb_body, 9275), (sym_method_decl, 2549), (sym_prog_access_decls, 3043), (sym_SFC, 7970),
     (sym_SFC_network, 7612), (sym_initial_step, 7439), (sym_config_init, 3047),
     (sym_variable_access, 7530), (sym_func_call, 2961), (sym_stmt_list, 7970), (sym__stmt, 2024),
     (sym_assign, 3150), (sym_if_stmt, 3150), (sym_case_stmt, 3150), (sym_for_stmt, 3150),
     (sym_while_stmt, 3150), (sym_repeat_stmt, 3150), (sym_raise_stmt, 3150), (sym_try_stmt, 3150),
     (sym_ERR_clause_outside_try, 3150), (sym_begin_path_expression, 2943), (sym_invocation, 2934),
     (sym_any_invocation, 2935), (sym_this_invocation, 2641), (sym_super_invocation, 2641),
     (sym_super_body_invocation, 2935), (sym_path_expression, 2627), (sym_field_expression, 2373),
     (sym_index_expression, 2373), (sym_ladder_diagram, 7970), (sym_fb_diagram, 7970),
     (aux_sym_ERR_fb_variables_after_method_repeat1, 2343), (aux_sym_func_decl_repeat1, 7194),
     (aux_sym_fb_decl_repeat3, 2549), (aux_sym_SFC_repeat1, 7612),
     (aux_sym_stmt_list_repeat1, 2024), (aux_sym_ladder_diagram_repeat1, 8009),
     (aux_sym_fb_diagram_repeat1, 8013), (sym_identifier, 298),
     (aux_sym_ERR_unexpected_this_in_path_token1, 304),
     (aux_sym_ERR_unexpected_super_in_path_token1, 306), (sym_line_comment, 3),
     (anon_sym_LBRACE, 308), (aux_sym_test_pragma_token1, 9), (aux_sym_once_pragma_token1, 11),
     (aux_sym_must_call_pragma_token1, 13), (aux_sym_export_pragma_token1, 15),
     (anon_sym_SEMI, 310), (anon_sym_PERCENT, 312), (aux_sym_input_decls_token1, 314),
     (aux_sym_output_decls_token1, 316), (aux_sym_in_out_decls_token1, 318),
     (aux_sym_var_decls_token1, 320), (aux_sym_temp_var_decls_token1, 322),
     (aux_sym_external_var_decls_token1, 324), (aux_sym_global_var_decls_token1, 326),
     (aux_sym_fb_decl_token4, 1570), (aux_sym_method_decl_token1, 330),
     (aux_sym_prog_access_decls_token1, 332), (aux_sym_initial_step_token1, 334),
     (aux_sym_config_init_token1, 336), (aux_sym__stmt_token1, 340), (aux_sym__stmt_token2, 340),
     (aux_sym__stmt_token3, 340), (aux_sym_if_stmt_token1, 342), (aux_sym_case_stmt_token1, 344),
     (aux_sym_for_stmt_token1, 346), (aux_sym_while_stmt_token1, 348),
     (aux_sym_repeat_stmt_token1, 350), (aux_sym_raise_stmt_token1, 352),
     (aux_sym_try_stmt_token1, 354), (aux_sym_try_stmt_token2, 356),
     (aux_sym_catch_clause_token1, 356), (aux_sym_finally_clause_token1, 356), (sym_ld_rung, 358),
     (sym_fbd_network, 360), (sym_c_style_comment, 3), (sym_pascal_style_comment, 3),
     (sym_pragma, 3)]"

lemma ts_parse_row_620_scan: "row_scan tokens_63_2 0 ts_parse_row_620 = Some (Suc (Suc (Suc (Suc 0))))"
  unfolding ts_parse_row_620_def by simp

text \<open>Lines 125382 to 125494.\<close>

definition ts_parse_row_621 :: parse_row where
  "ts_parse_row_621 =
    [(sym_ERR_assign_func_call, 7530), (sym_ERR_unexpected_this_in_path, 2372),
     (sym_ERR_unexpected_super_in_path, 2372), (sym_ERR_fb_variables_after_method, 1562),
     (sym_ERR_var_access_not_allowed, 3160), (sym_ERR_var_config_not_allowed, 3160),
     (sym_ERR_var_global_not_allowed, 3160), (sym_ERR_method_decl_in_body, 3150),
     (sym_extern_pragma, 7490), (sym_wasm_pragma, 3150), (sym_warn_pragma, 7490),
     (sym_allow_pragma, 3140), (sym_test_pragma, 7490), (sym_once_pragma, 7490),
     (sym_must_call_pragma, 7490), (sym_export_pragma, 7490), (sym_pou_pragma, 7194),
     (sym_direct_variable, 7675), (sym_deref_expression, 2373), (sym_variable, 7599),
     (sym_var_access, 2373), (sym_in_out_decls, 3160), (sym_var_decls, 3160),
     (sym_retain_var_decls, 3160), (sym_temp_var_decls, 3160), (sym_external_var_decls, 3160),
     (sym_global_var_decls, 2947), (sym_loc_partly_var_decl, 3160), (sym__fb_variables, 2343),
     (sym_fb_input_decls, 3160), (sym_fb_output_decls, 3160), (sym_no_retain_var_decls, 3160),
     (sym_fb_body, 9311), (sym_method_decl, 2549), (sym_prog_access_decls, 3043), (sym_SFC, 7970),
     (sym_SFC_network, 7612), (sym_initial_step, 7439), (sym_config_init, 3047),
     (sym_variable_access, 7530), (sym_func_call, 2961), (sym_stmt_list, 7970), (sym__stmt, 2024),
     (sym_assign, 3150), (sym_if_stmt, 3150), (sym_case_stmt, 3150), (sym_for_stmt, 3150),
     (sym_while_stmt, 3150), (sym_repeat_stmt, 3150), (sym_raise_stmt, 3150), (sym_try_stmt, 3150),
     (sym_ERR_clause_outside_try, 3150), (sym_begin_path_expression, 2943), (sym_invocation, 2934),
     (sym_any_invocation, 2935), (sym_this_invocation, 2641), (sym_super_invocation, 2641),
     (sym_super_body_invocation, 2935), (sym_path_expression, 2627), (sym_field_expression, 2373),
     (sym_index_expression, 2373), (sym_ladder_diagram, 7970), (sym_fb_diagram, 7970),
     (aux_sym_ERR_fb_variables_after_method_repeat1, 2343), (aux_sym_func_decl_repeat1, 7194),
     (aux_sym_fb_decl_repeat3, 2549), (aux_sym_SFC_repeat1, 7612),
     (aux_sym_stmt_list_repeat1, 2024), (aux_sym_ladder_diagram_repeat1, 8009),
     (aux_sym_fb_diagram_repeat1, 8013), (sym_identifier, 298),
     (aux_sym_ERR_unexpected_this_in_path_token1, 304),
     (aux_sym_ERR_unexpected_super_in_path_token1, 306), (sym_line_comment, 3),
     (anon_sym_LBRACE, 308), (aux_sym_test_pragma_token1, 9), (aux_sym_once_pragma_token1, 11),
     (aux_sym_must_call_pragma_token1, 13), (aux_sym_export_pragma_token1, 15),
     (anon_sym_SEMI, 310), (anon_sym_PERCENT, 312), (aux_sym_input_decls_token1, 314),
     (aux_sym_output_decls_token1, 316), (aux_sym_in_out_decls_token1, 318),
     (aux_sym_var_decls_token1, 320), (aux_sym_temp_var_decls_token1, 322),
     (aux_sym_external_var_decls_token1, 324), (aux_sym_global_var_decls_token1, 326),
     (aux_sym_fb_decl_token4, 1572), (aux_sym_method_decl_token1, 330),
     (aux_sym_prog_access_decls_token1, 332), (aux_sym_initial_step_token1, 334),
     (aux_sym_config_init_token1, 336), (aux_sym__stmt_token1, 340), (aux_sym__stmt_token2, 340),
     (aux_sym__stmt_token3, 340), (aux_sym_if_stmt_token1, 342), (aux_sym_case_stmt_token1, 344),
     (aux_sym_for_stmt_token1, 346), (aux_sym_while_stmt_token1, 348),
     (aux_sym_repeat_stmt_token1, 350), (aux_sym_raise_stmt_token1, 352),
     (aux_sym_try_stmt_token1, 354), (aux_sym_try_stmt_token2, 356),
     (aux_sym_catch_clause_token1, 356), (aux_sym_finally_clause_token1, 356), (sym_ld_rung, 358),
     (sym_fbd_network, 360), (sym_c_style_comment, 3), (sym_pascal_style_comment, 3),
     (sym_pragma, 3)]"

lemma ts_parse_row_621_scan: "row_scan tokens_63_2 0 ts_parse_row_621 = Some (Suc (Suc (Suc (Suc 0))))"
  unfolding ts_parse_row_621_def by simp

text \<open>Lines 125495 to 125607.\<close>

definition ts_parse_row_622 :: parse_row where
  "ts_parse_row_622 =
    [(sym_ERR_assign_func_call, 7530), (sym_ERR_unexpected_this_in_path, 2372),
     (sym_ERR_unexpected_super_in_path, 2372), (sym_ERR_fb_variables_after_method, 1746),
     (sym_ERR_var_access_not_allowed, 3160), (sym_ERR_var_config_not_allowed, 3160),
     (sym_ERR_var_global_not_allowed, 3160), (sym_ERR_method_decl_in_body, 3150),
     (sym_extern_pragma, 7490), (sym_wasm_pragma, 3150), (sym_warn_pragma, 7490),
     (sym_allow_pragma, 3140), (sym_test_pragma, 7490), (sym_once_pragma, 7490),
     (sym_must_call_pragma, 7490), (sym_export_pragma, 7490), (sym_pou_pragma, 7194),
     (sym_direct_variable, 7675), (sym_deref_expression, 2373), (sym_variable, 7599),
     (sym_var_access, 2373), (sym_in_out_decls, 3160), (sym_var_decls, 3160),
     (sym_retain_var_decls, 3160), (sym_temp_var_decls, 3160), (sym_external_var_decls, 3160),
     (sym_global_var_decls, 2947), (sym_loc_partly_var_decl, 3160), (sym__fb_variables, 2343),
     (sym_fb_input_decls, 3160), (sym_fb_output_decls, 3160), (sym_no_retain_var_decls, 3160),
     (sym_fb_body, 9261), (sym_method_decl, 2549), (sym_prog_access_decls, 3043), (sym_SFC, 7970),
     (sym_SFC_network, 7612), (sym_initial_step, 7439), (sym_config_init, 3047),
     (sym_variable_access, 7530), (sym_func_call, 2961), (sym_stmt_list, 7970), (sym__stmt, 2024),
     (sym_assign, 3150), (sym_if_stmt, 3150), (sym_case_stmt, 3150), (sym_for_stmt, 3150),
     (sym_while_stmt, 3150), (sym_repeat_stmt, 3150), (sym_raise_stmt, 3150), (sym_try_stmt, 3150),
     (sym_ERR_clause_outside_try, 3150), (sym_begin_path_expression, 2943), (sym_invocation, 2934),
     (sym_any_invocation, 2935), (sym_this_invocation, 2641), (sym_super_invocation, 2641),
     (sym_super_body_invocation, 2935), (sym_path_expression, 2627), (sym_field_expression, 2373),
     (sym_index_expression, 2373), (sym_ladder_diagram, 7970), (sym_fb_diagram, 7970),
     (aux_sym_ERR_fb_variables_after_method_repeat1, 2343), (aux_sym_func_decl_repeat1, 7194),
     (aux_sym_fb_decl_repeat3, 2549), (aux_sym_SFC_repeat1, 7612),
     (aux_sym_stmt_list_repeat1, 2024), (aux_sym_ladder_diagram_repeat1, 8009),
     (aux_sym_fb_diagram_repeat1, 8013), (sym_identifier, 298),
     (aux_sym_ERR_unexpected_this_in_path_token1, 304),
     (aux_sym_ERR_unexpected_super_in_path_token1, 306), (sym_line_comment, 3),
     (anon_sym_LBRACE, 308), (aux_sym_test_pragma_token1, 9), (aux_sym_once_pragma_token1, 11),
     (aux_sym_must_call_pragma_token1, 13), (aux_sym_export_pragma_token1, 15),
     (anon_sym_SEMI, 310), (anon_sym_PERCENT, 312), (aux_sym_input_decls_token1, 314),
     (aux_sym_output_decls_token1, 316), (aux_sym_in_out_decls_token1, 318),
     (aux_sym_var_decls_token1, 320), (aux_sym_temp_var_decls_token1, 322),
     (aux_sym_external_var_decls_token1, 324), (aux_sym_global_var_decls_token1, 326),
     (aux_sym_fb_decl_token4, 1574), (aux_sym_method_decl_token1, 330),
     (aux_sym_prog_access_decls_token1, 332), (aux_sym_initial_step_token1, 334),
     (aux_sym_config_init_token1, 336), (aux_sym__stmt_token1, 340), (aux_sym__stmt_token2, 340),
     (aux_sym__stmt_token3, 340), (aux_sym_if_stmt_token1, 342), (aux_sym_case_stmt_token1, 344),
     (aux_sym_for_stmt_token1, 346), (aux_sym_while_stmt_token1, 348),
     (aux_sym_repeat_stmt_token1, 350), (aux_sym_raise_stmt_token1, 352),
     (aux_sym_try_stmt_token1, 354), (aux_sym_try_stmt_token2, 356),
     (aux_sym_catch_clause_token1, 356), (aux_sym_finally_clause_token1, 356), (sym_ld_rung, 358),
     (sym_fbd_network, 360), (sym_c_style_comment, 3), (sym_pascal_style_comment, 3),
     (sym_pragma, 3)]"

lemma ts_parse_row_622_scan: "row_scan tokens_63_2 0 ts_parse_row_622 = Some (Suc (Suc (Suc (Suc 0))))"
  unfolding ts_parse_row_622_def by simp

text \<open>Lines 125608 to 125720.\<close>

definition ts_parse_row_623 :: parse_row where
  "ts_parse_row_623 =
    [(sym_ERR_assign_func_call, 7530), (sym_ERR_unexpected_this_in_path, 2372),
     (sym_ERR_unexpected_super_in_path, 2372), (sym_ERR_fb_variables_after_method, 1564),
     (sym_ERR_var_access_not_allowed, 3160), (sym_ERR_var_config_not_allowed, 3160),
     (sym_ERR_var_global_not_allowed, 3160), (sym_ERR_method_decl_in_body, 3150),
     (sym_extern_pragma, 7490), (sym_wasm_pragma, 3150), (sym_warn_pragma, 7490),
     (sym_allow_pragma, 3140), (sym_test_pragma, 7490), (sym_once_pragma, 7490),
     (sym_must_call_pragma, 7490), (sym_export_pragma, 7490), (sym_pou_pragma, 7194),
     (sym_direct_variable, 7675), (sym_deref_expression, 2373), (sym_variable, 7599),
     (sym_var_access, 2373), (sym_in_out_decls, 3160), (sym_var_decls, 3160),
     (sym_retain_var_decls, 3160), (sym_temp_var_decls, 3160), (sym_external_var_decls, 3160),
     (sym_global_var_decls, 2947), (sym_loc_partly_var_decl, 3160), (sym__fb_variables, 2343),
     (sym_fb_input_decls, 3160), (sym_fb_output_decls, 3160), (sym_no_retain_var_decls, 3160),
     (sym_fb_body, 9367), (sym_method_decl, 2549), (sym_prog_access_decls, 3043), (sym_SFC, 7970),
     (sym_SFC_network, 7612), (sym_initial_step, 7439), (sym_config_init, 3047),
     (sym_variable_access, 7530), (sym_func_call, 2961), (sym_stmt_list, 7970), (sym__stmt, 2024),
     (sym_assign, 3150), (sym_if_stmt, 3150), (sym_case_stmt, 3150), (sym_for_stmt, 3150),
     (sym_while_stmt, 3150), (sym_repeat_stmt, 3150), (sym_raise_stmt, 3150), (sym_try_stmt, 3150),
     (sym_ERR_clause_outside_try, 3150), (sym_begin_path_expression, 2943), (sym_invocation, 2934),
     (sym_any_invocation, 2935), (sym_this_invocation, 2641), (sym_super_invocation, 2641),
     (sym_super_body_invocation, 2935), (sym_path_expression, 2627), (sym_field_expression, 2373),
     (sym_index_expression, 2373), (sym_ladder_diagram, 7970), (sym_fb_diagram, 7970),
     (aux_sym_ERR_fb_variables_after_method_repeat1, 2343), (aux_sym_func_decl_repeat1, 7194),
     (aux_sym_fb_decl_repeat3, 2549), (aux_sym_SFC_repeat1, 7612),
     (aux_sym_stmt_list_repeat1, 2024), (aux_sym_ladder_diagram_repeat1, 8009),
     (aux_sym_fb_diagram_repeat1, 8013), (sym_identifier, 298),
     (aux_sym_ERR_unexpected_this_in_path_token1, 304),
     (aux_sym_ERR_unexpected_super_in_path_token1, 306), (sym_line_comment, 3),
     (anon_sym_LBRACE, 308), (aux_sym_test_pragma_token1, 9), (aux_sym_once_pragma_token1, 11),
     (aux_sym_must_call_pragma_token1, 13), (aux_sym_export_pragma_token1, 15),
     (anon_sym_SEMI, 310), (anon_sym_PERCENT, 312), (aux_sym_input_decls_token1, 314),
     (aux_sym_output_decls_token1, 316), (aux_sym_in_out_decls_token1, 318),
     (aux_sym_var_decls_token1, 320), (aux_sym_temp_var_decls_token1, 322),
     (aux_sym_external_var_decls_token1, 324), (aux_sym_global_var_decls_token1, 326),
     (aux_sym_fb_decl_token4, 1576), (aux_sym_method_decl_token1, 330),
     (aux_sym_prog_access_decls_token1, 332), (aux_sym_initial_step_token1, 334),
     (aux_sym_config_init_token1, 336), (aux_sym__stmt_token1, 340), (aux_sym__stmt_token2, 340),
     (aux_sym__stmt_token3, 340), (aux_sym_if_stmt_token1, 342), (aux_sym_case_stmt_token1, 344),
     (aux_sym_for_stmt_token1, 346), (aux_sym_while_stmt_token1, 348),
     (aux_sym_repeat_stmt_token1, 350), (aux_sym_raise_stmt_token1, 352),
     (aux_sym_try_stmt_token1, 354), (aux_sym_try_stmt_token2, 356),
     (aux_sym_catch_clause_token1, 356), (aux_sym_finally_clause_token1, 356), (sym_ld_rung, 358),
     (sym_fbd_network, 360), (sym_c_style_comment, 3), (sym_pascal_style_comment, 3),
     (sym_pragma, 3)]"

lemma ts_parse_row_623_scan: "row_scan tokens_63_2 0 ts_parse_row_623 = Some (Suc (Suc (Suc (Suc 0))))"
  unfolding ts_parse_row_623_def by simp

text \<open>Lines 125721 to 125833.\<close>

definition ts_parse_row_624 :: parse_row where
  "ts_parse_row_624 =
    [(sym_ERR_assign_func_call, 7530), (sym_ERR_unexpected_this_in_path, 2372),
     (sym_ERR_unexpected_super_in_path, 2372), (sym_ERR_fb_variables_after_method, 1565),
     (sym_ERR_var_access_not_allowed, 3160), (sym_ERR_var_config_not_allowed, 3160),
     (sym_ERR_var_global_not_allowed, 3160), (sym_ERR_method_decl_in_body, 3150),
     (sym_extern_pragma, 7490), (sym_wasm_pragma, 3150), (sym_warn_pragma, 7490),
     (sym_allow_pragma, 3140), (sym_test_pragma, 7490), (sym_once_pragma, 7490),
     (sym_must_call_pragma, 7490), (sym_export_pragma, 7490), (sym_pou_pragma, 7194),
     (sym_direct_variable, 7675), (sym_deref_expression, 2373), (sym_variable, 7599),
     (sym_var_access, 2373), (sym_in_out_decls, 3160), (sym_var_decls, 3160),
     (sym_retain_var_decls, 3160), (sym_temp_var_decls, 3160), (sym_external_var_decls, 3160),
     (sym_global_var_decls, 2947), (sym_loc_partly_var_decl, 3160), (sym__fb_variables, 2343),
     (sym_fb_input_decls, 3160), (sym_fb_output_decls, 3160), (sym_no_retain_var_decls, 3160),
     (sym_fb_body, 9381), (sym_method_decl, 2549), (sym_prog_access_decls, 3043), (sym_SFC, 7970),
     (sym_SFC_network, 7612), (sym_initial_step, 7439), (sym_config_init, 3047),
     (sym_variable_access, 7530), (sym_func_call, 2961), (sym_stmt_list, 7970), (sym__stmt, 2024),
     (sym_assign, 3150), (sym_if_stmt, 3150), (sym_case_stmt, 3150), (sym_for_stmt, 3150),
     (sym_while_stmt, 3150), (sym_repeat_stmt, 3150), (sym_raise_stmt, 3150), (sym_try_stmt, 3150),
     (sym_ERR_clause_outside_try, 3150), (sym_begin_path_expression, 2943), (sym_invocation, 2934),
     (sym_any_invocation, 2935), (sym_this_invocation, 2641), (sym_super_invocation, 2641),
     (sym_super_body_invocation, 2935), (sym_path_expression, 2627), (sym_field_expression, 2373),
     (sym_index_expression, 2373), (sym_ladder_diagram, 7970), (sym_fb_diagram, 7970),
     (aux_sym_ERR_fb_variables_after_method_repeat1, 2343), (aux_sym_func_decl_repeat1, 7194),
     (aux_sym_fb_decl_repeat3, 2549), (aux_sym_SFC_repeat1, 7612),
     (aux_sym_stmt_list_repeat1, 2024), (aux_sym_ladder_diagram_repeat1, 8009),
     (aux_sym_fb_diagram_repeat1, 8013), (sym_identifier, 298),
     (aux_sym_ERR_unexpected_this_in_path_token1, 304),
     (aux_sym_ERR_unexpected_super_in_path_token1, 306), (sym_line_comment, 3),
     (anon_sym_LBRACE, 308), (aux_sym_test_pragma_token1, 9), (aux_sym_once_pragma_token1, 11),
     (aux_sym_must_call_pragma_token1, 13), (aux_sym_export_pragma_token1, 15),
     (anon_sym_SEMI, 310), (anon_sym_PERCENT, 312), (aux_sym_input_decls_token1, 314),
     (aux_sym_output_decls_token1, 316), (aux_sym_in_out_decls_token1, 318),
     (aux_sym_var_decls_token1, 320), (aux_sym_temp_var_decls_token1, 322),
     (aux_sym_external_var_decls_token1, 324), (aux_sym_global_var_decls_token1, 326),
     (aux_sym_fb_decl_token4, 1578), (aux_sym_method_decl_token1, 330),
     (aux_sym_prog_access_decls_token1, 332), (aux_sym_initial_step_token1, 334),
     (aux_sym_config_init_token1, 336), (aux_sym__stmt_token1, 340), (aux_sym__stmt_token2, 340),
     (aux_sym__stmt_token3, 340), (aux_sym_if_stmt_token1, 342), (aux_sym_case_stmt_token1, 344),
     (aux_sym_for_stmt_token1, 346), (aux_sym_while_stmt_token1, 348),
     (aux_sym_repeat_stmt_token1, 350), (aux_sym_raise_stmt_token1, 352),
     (aux_sym_try_stmt_token1, 354), (aux_sym_try_stmt_token2, 356),
     (aux_sym_catch_clause_token1, 356), (aux_sym_finally_clause_token1, 356), (sym_ld_rung, 358),
     (sym_fbd_network, 360), (sym_c_style_comment, 3), (sym_pascal_style_comment, 3),
     (sym_pragma, 3)]"

lemma ts_parse_row_624_scan: "row_scan tokens_63_2 0 ts_parse_row_624 = Some (Suc (Suc (Suc (Suc 0))))"
  unfolding ts_parse_row_624_def by simp

text \<open>Lines 125834 to 125946.\<close>

definition ts_parse_row_625 :: parse_row where
  "ts_parse_row_625 =
    [(sym_ERR_assign_func_call, 7530), (sym_ERR_unexpected_this_in_path, 2372),
     (sym_ERR_unexpected_super_in_path, 2372), (sym_ERR_fb_variables_after_method, 1926),
     (sym_ERR_var_access_not_allowed, 3160), (sym_ERR_var_config_not_allowed, 3160),
     (sym_ERR_var_global_not_allowed, 3160), (sym_ERR_method_decl_in_body, 3150),
     (sym_extern_pragma, 7490), (sym_wasm_pragma, 3150), (sym_warn_pragma, 7490),
     (sym_allow_pragma, 3140), (sym_test_pragma, 7490), (sym_once_pragma, 7490),
     (sym_must_call_pragma, 7490), (sym_export_pragma, 7490), (sym_pou_pragma, 7194),
     (sym_direct_variable, 7675), (sym_deref_expression, 2373), (sym_variable, 7599),
     (sym_var_access, 2373), (sym_in_out_decls, 3160), (sym_var_decls, 3160),
     (sym_retain_var_decls, 3160), (sym_temp_var_decls, 3160), (sym_external_var_decls, 3160),
     (sym_global_var_decls, 2947), (sym_loc_partly_var_decl, 3160), (sym__fb_variables, 2343),
     (sym_fb_input_decls, 3160), (sym_fb_output_decls, 3160), (sym_no_retain_var_decls, 3160),
     (sym_fb_body, 9300), (sym_method_decl, 2549), (sym_prog_access_decls, 3043), (sym_SFC, 7970),
     (sym_SFC_network, 7612), (sym_initial_step, 7439), (sym_config_init, 3047),
     (sym_variable_access, 7530), (sym_func_call, 2961), (sym_stmt_list, 7970), (sym__stmt, 2024),
     (sym_assign, 3150), (sym_if_stmt, 3150), (sym_case_stmt, 3150), (sym_for_stmt, 3150),
     (sym_while_stmt, 3150), (sym_repeat_stmt, 3150), (sym_raise_stmt, 3150), (sym_try_stmt, 3150),
     (sym_ERR_clause_outside_try, 3150), (sym_begin_path_expression, 2943), (sym_invocation, 2934),
     (sym_any_invocation, 2935), (sym_this_invocation, 2641), (sym_super_invocation, 2641),
     (sym_super_body_invocation, 2935), (sym_path_expression, 2627), (sym_field_expression, 2373),
     (sym_index_expression, 2373), (sym_ladder_diagram, 7970), (sym_fb_diagram, 7970),
     (aux_sym_ERR_fb_variables_after_method_repeat1, 2343), (aux_sym_func_decl_repeat1, 7194),
     (aux_sym_fb_decl_repeat3, 2549), (aux_sym_SFC_repeat1, 7612),
     (aux_sym_stmt_list_repeat1, 2024), (aux_sym_ladder_diagram_repeat1, 8009),
     (aux_sym_fb_diagram_repeat1, 8013), (sym_identifier, 298),
     (aux_sym_ERR_unexpected_this_in_path_token1, 304),
     (aux_sym_ERR_unexpected_super_in_path_token1, 306), (sym_line_comment, 3),
     (anon_sym_LBRACE, 308), (aux_sym_test_pragma_token1, 9), (aux_sym_once_pragma_token1, 11),
     (aux_sym_must_call_pragma_token1, 13), (aux_sym_export_pragma_token1, 15),
     (anon_sym_SEMI, 310), (anon_sym_PERCENT, 312), (aux_sym_input_decls_token1, 314),
     (aux_sym_output_decls_token1, 316), (aux_sym_in_out_decls_token1, 318),
     (aux_sym_var_decls_token1, 320), (aux_sym_temp_var_decls_token1, 322),
     (aux_sym_external_var_decls_token1, 324), (aux_sym_global_var_decls_token1, 326),
     (aux_sym_fb_decl_token4, 1580), (aux_sym_method_decl_token1, 330),
     (aux_sym_prog_access_decls_token1, 332), (aux_sym_initial_step_token1, 334),
     (aux_sym_config_init_token1, 336), (aux_sym__stmt_token1, 340), (aux_sym__stmt_token2, 340),
     (aux_sym__stmt_token3, 340), (aux_sym_if_stmt_token1, 342), (aux_sym_case_stmt_token1, 344),
     (aux_sym_for_stmt_token1, 346), (aux_sym_while_stmt_token1, 348),
     (aux_sym_repeat_stmt_token1, 350), (aux_sym_raise_stmt_token1, 352),
     (aux_sym_try_stmt_token1, 354), (aux_sym_try_stmt_token2, 356),
     (aux_sym_catch_clause_token1, 356), (aux_sym_finally_clause_token1, 356), (sym_ld_rung, 358),
     (sym_fbd_network, 360), (sym_c_style_comment, 3), (sym_pascal_style_comment, 3),
     (sym_pragma, 3)]"

lemma ts_parse_row_625_scan: "row_scan tokens_63_2 0 ts_parse_row_625 = Some (Suc (Suc (Suc (Suc 0))))"
  unfolding ts_parse_row_625_def by simp

text \<open>Lines 125947 to 126059.\<close>

definition ts_parse_row_626 :: parse_row where
  "ts_parse_row_626 =
    [(sym_ERR_assign_func_call, 7530), (sym_ERR_unexpected_this_in_path, 2372),
     (sym_ERR_unexpected_super_in_path, 2372), (sym_ERR_fb_variables_after_method, 1568),
     (sym_ERR_var_access_not_allowed, 3160), (sym_ERR_var_config_not_allowed, 3160),
     (sym_ERR_var_global_not_allowed, 3160), (sym_ERR_method_decl_in_body, 3150),
     (sym_extern_pragma, 7490), (sym_wasm_pragma, 3150), (sym_warn_pragma, 7490),
     (sym_allow_pragma, 3140), (sym_test_pragma, 7490), (sym_once_pragma, 7490),
     (sym_must_call_pragma, 7490), (sym_export_pragma, 7490), (sym_pou_pragma, 7194),
     (sym_direct_variable, 7675), (sym_deref_expression, 2373), (sym_variable, 7599),
     (sym_var_access, 2373), (sym_in_out_decls, 3160), (sym_var_decls, 3160),
     (sym_retain_var_decls, 3160), (sym_temp_var_decls, 3160), (sym_external_var_decls, 3160),
     (sym_global_var_decls, 2947), (sym_loc_partly_var_decl, 3160), (sym__fb_variables, 2343),
     (sym_fb_input_decls, 3160), (sym_fb_output_decls, 3160), (sym_no_retain_var_decls, 3160),
     (sym_fb_body, 9395), (sym_method_decl, 2549), (sym_prog_access_decls, 3043), (sym_SFC, 7970),
     (sym_SFC_network, 7612), (sym_initial_step, 7439), (sym_config_init, 3047),
     (sym_variable_access, 7530), (sym_func_call, 2961), (sym_stmt_list, 7970), (sym__stmt, 2024),
     (sym_assign, 3150), (sym_if_stmt, 3150), (sym_case_stmt, 3150), (sym_for_stmt, 3150),
     (sym_while_stmt, 3150), (sym_repeat_stmt, 3150), (sym_raise_stmt, 3150), (sym_try_stmt, 3150),
     (sym_ERR_clause_outside_try, 3150), (sym_begin_path_expression, 2943), (sym_invocation, 2934),
     (sym_any_invocation, 2935), (sym_this_invocation, 2641), (sym_super_invocation, 2641),
     (sym_super_body_invocation, 2935), (sym_path_expression, 2627), (sym_field_expression, 2373),
     (sym_index_expression, 2373), (sym_ladder_diagram, 7970), (sym_fb_diagram, 7970),
     (aux_sym_ERR_fb_variables_after_method_repeat1, 2343), (aux_sym_func_decl_repeat1, 7194),
     (aux_sym_fb_decl_repeat3, 2549), (aux_sym_SFC_repeat1, 7612),
     (aux_sym_stmt_list_repeat1, 2024), (aux_sym_ladder_diagram_repeat1, 8009),
     (aux_sym_fb_diagram_repeat1, 8013), (sym_identifier, 298),
     (aux_sym_ERR_unexpected_this_in_path_token1, 304),
     (aux_sym_ERR_unexpected_super_in_path_token1, 306), (sym_line_comment, 3),
     (anon_sym_LBRACE, 308), (aux_sym_test_pragma_token1, 9), (aux_sym_once_pragma_token1, 11),
     (aux_sym_must_call_pragma_token1, 13), (aux_sym_export_pragma_token1, 15),
     (anon_sym_SEMI, 310), (anon_sym_PERCENT, 312), (aux_sym_input_decls_token1, 314),
     (aux_sym_output_decls_token1, 316), (aux_sym_in_out_decls_token1, 318),
     (aux_sym_var_decls_token1, 320), (aux_sym_temp_var_decls_token1, 322),
     (aux_sym_external_var_decls_token1, 324), (aux_sym_global_var_decls_token1, 326),
     (aux_sym_fb_decl_token4, 1582), (aux_sym_method_decl_token1, 330),
     (aux_sym_prog_access_decls_token1, 332), (aux_sym_initial_step_token1, 334),
     (aux_sym_config_init_token1, 336), (aux_sym__stmt_token1, 340), (aux_sym__stmt_token2, 340),
     (aux_sym__stmt_token3, 340), (aux_sym_if_stmt_token1, 342), (aux_sym_case_stmt_token1, 344),
     (aux_sym_for_stmt_token1, 346), (aux_sym_while_stmt_token1, 348),
     (aux_sym_repeat_stmt_token1, 350), (aux_sym_raise_stmt_token1, 352),
     (aux_sym_try_stmt_token1, 354), (aux_sym_try_stmt_token2, 356),
     (aux_sym_catch_clause_token1, 356), (aux_sym_finally_clause_token1, 356), (sym_ld_rung, 358),
     (sym_fbd_network, 360), (sym_c_style_comment, 3), (sym_pascal_style_comment, 3),
     (sym_pragma, 3)]"

lemma ts_parse_row_626_scan: "row_scan tokens_63_2 0 ts_parse_row_626 = Some (Suc (Suc (Suc (Suc 0))))"
  unfolding ts_parse_row_626_def by simp

text \<open>Lines 126060 to 126172.\<close>

definition ts_parse_row_627 :: parse_row where
  "ts_parse_row_627 =
    [(sym_ERR_assign_func_call, 7530), (sym_ERR_unexpected_this_in_path, 2372),
     (sym_ERR_unexpected_super_in_path, 2372), (sym_ERR_fb_variables_after_method, 1569),
     (sym_ERR_var_access_not_allowed, 3160), (sym_ERR_var_config_not_allowed, 3160),
     (sym_ERR_var_global_not_allowed, 3160), (sym_ERR_method_decl_in_body, 3150),
     (sym_extern_pragma, 7490), (sym_wasm_pragma, 3150), (sym_warn_pragma, 7490),
     (sym_allow_pragma, 3140), (sym_test_pragma, 7490), (sym_once_pragma, 7490),
     (sym_must_call_pragma, 7490), (sym_export_pragma, 7490), (sym_pou_pragma, 7194),
     (sym_direct_variable, 7675), (sym_deref_expression, 2373), (sym_variable, 7599),
     (sym_var_access, 2373), (sym_in_out_decls, 3160), (sym_var_decls, 3160),
     (sym_retain_var_decls, 3160), (sym_temp_var_decls, 3160), (sym_external_var_decls, 3160),
     (sym_global_var_decls, 2947), (sym_loc_partly_var_decl, 3160), (sym__fb_variables, 2343),
     (sym_fb_input_decls, 3160), (sym_fb_output_decls, 3160), (sym_no_retain_var_decls, 3160),
     (sym_fb_body, 9407), (sym_method_decl, 2549), (sym_prog_access_decls, 3043), (sym_SFC, 7970),
     (sym_SFC_network, 7612), (sym_initial_step, 7439), (sym_config_init, 3047),
     (sym_variable_access, 7530), (sym_func_call, 2961), (sym_stmt_list, 7970), (sym__stmt, 2024),
     (sym_assign, 3150), (sym_if_stmt, 3150), (sym_case_stmt, 3150), (sym_for_stmt, 3150),
     (sym_while_stmt, 3150), (sym_repeat_stmt, 3150), (sym_raise_stmt, 3150), (sym_try_stmt, 3150),
     (sym_ERR_clause_outside_try, 3150), (sym_begin_path_expression, 2943), (sym_invocation, 2934),
     (sym_any_invocation, 2935), (sym_this_invocation, 2641), (sym_super_invocation, 2641),
     (sym_super_body_invocation, 2935), (sym_path_expression, 2627), (sym_field_expression, 2373),
     (sym_index_expression, 2373), (sym_ladder_diagram, 7970), (sym_fb_diagram, 7970),
     (aux_sym_ERR_fb_variables_after_method_repeat1, 2343), (aux_sym_func_decl_repeat1, 7194),
     (aux_sym_fb_decl_repeat3, 2549), (aux_sym_SFC_repeat1, 7612),
     (aux_sym_stmt_list_repeat1, 2024), (aux_sym_ladder_diagram_repeat1, 8009),
     (aux_sym_fb_diagram_repeat1, 8013), (sym_identifier, 298),
     (aux_sym_ERR_unexpected_this_in_path_token1, 304),
     (aux_sym_ERR_unexpected_super_in_path_token1, 306), (sym_line_comment, 3),
     (anon_sym_LBRACE, 308), (aux_sym_test_pragma_token1, 9), (aux_sym_once_pragma_token1, 11),
     (aux_sym_must_call_pragma_token1, 13), (aux_sym_export_pragma_token1, 15),
     (anon_sym_SEMI, 310), (anon_sym_PERCENT, 312), (aux_sym_input_decls_token1, 314),
     (aux_sym_output_decls_token1, 316), (aux_sym_in_out_decls_token1, 318),
     (aux_sym_var_decls_token1, 320), (aux_sym_temp_var_decls_token1, 322),
     (aux_sym_external_var_decls_token1, 324), (aux_sym_global_var_decls_token1, 326),
     (aux_sym_fb_decl_token4, 1584), (aux_sym_method_decl_token1, 330),
     (aux_sym_prog_access_decls_token1, 332), (aux_sym_initial_step_token1, 334),
     (aux_sym_config_init_token1, 336), (aux_sym__stmt_token1, 340), (aux_sym__stmt_token2, 340),
     (aux_sym__stmt_token3, 340), (aux_sym_if_stmt_token1, 342), (aux_sym_case_stmt_token1, 344),
     (aux_sym_for_stmt_token1, 346), (aux_sym_while_stmt_token1, 348),
     (aux_sym_repeat_stmt_token1, 350), (aux_sym_raise_stmt_token1, 352),
     (aux_sym_try_stmt_token1, 354), (aux_sym_try_stmt_token2, 356),
     (aux_sym_catch_clause_token1, 356), (aux_sym_finally_clause_token1, 356), (sym_ld_rung, 358),
     (sym_fbd_network, 360), (sym_c_style_comment, 3), (sym_pascal_style_comment, 3),
     (sym_pragma, 3)]"

lemma ts_parse_row_627_scan: "row_scan tokens_63_2 0 ts_parse_row_627 = Some (Suc (Suc (Suc (Suc 0))))"
  unfolding ts_parse_row_627_def by simp

text \<open>Lines 126173 to 126285.\<close>

definition ts_parse_row_628 :: parse_row where
  "ts_parse_row_628 =
    [(sym_ERR_assign_func_call, 7530), (sym_ERR_unexpected_this_in_path, 2372),
     (sym_ERR_unexpected_super_in_path, 2372), (sym_ERR_fb_variables_after_method, 1570),
     (sym_ERR_var_access_not_allowed, 3160), (sym_ERR_var_config_not_allowed, 3160),
     (sym_ERR_var_global_not_allowed, 3160), (sym_ERR_method_decl_in_body, 3150),
     (sym_extern_pragma, 7490), (sym_wasm_pragma, 3150), (sym_warn_pragma, 7490),
     (sym_allow_pragma, 3140), (sym_test_pragma, 7490), (sym_once_pragma, 7490),
     (sym_must_call_pragma, 7490), (sym_export_pragma, 7490), (sym_pou_pragma, 7194),
     (sym_direct_variable, 7675), (sym_deref_expression, 2373), (sym_variable, 7599),
     (sym_var_access, 2373), (sym_in_out_decls, 3160), (sym_var_decls, 3160),
     (sym_retain_var_decls, 3160), (sym_temp_var_decls, 3160), (sym_external_var_decls, 3160),
     (sym_global_var_decls, 2947), (sym_loc_partly_var_decl, 3160), (sym__fb_variables, 2347),
     (sym_fb_input_decls, 3160), (sym_fb_output_decls, 3160), (sym_no_retain_var_decls, 3160),
     (sym_fb_body, 9413), (sym_method_decl, 740), (sym_prog_access_decls, 3043), (sym_SFC, 7970),
     (sym_SFC_network, 7612), (sym_initial_step, 7439), (sym_config_init, 3047),
     (sym_variable_access, 7530), (sym_func_call, 2961), (sym_stmt_list, 7970), (sym__stmt, 2024),
     (sym_assign, 3150), (sym_if_stmt, 3150), (sym_case_stmt, 3150), (sym_for_stmt, 3150),
     (sym_while_stmt, 3150), (sym_repeat_stmt, 3150), (sym_raise_stmt, 3150), (sym_try_stmt, 3150),
     (sym_ERR_clause_outside_try, 3150), (sym_begin_path_expression, 2943), (sym_invocation, 2934),
     (sym_any_invocation, 2935), (sym_this_invocation, 2641), (sym_super_invocation, 2641),
     (sym_super_body_invocation, 2935), (sym_path_expression, 2627), (sym_field_expression, 2373),
     (sym_index_expression, 2373), (sym_ladder_diagram, 7970), (sym_fb_diagram, 7970),
     (aux_sym_ERR_fb_variables_after_method_repeat1, 2347), (aux_sym_func_decl_repeat1, 7194),
     (aux_sym_fb_decl_repeat3, 740), (aux_sym_SFC_repeat1, 7612), (aux_sym_stmt_list_repeat1, 2024),
     (aux_sym_ladder_diagram_repeat1, 8009), (aux_sym_fb_diagram_repeat1, 8013),
     (sym_identifier, 298), (aux_sym_ERR_unexpected_this_in_path_token1, 304),
     (aux_sym_ERR_unexpected_super_in_path_token1, 306), (sym_line_comment, 3),
     (anon_sym_LBRACE, 308), (aux_sym_test_pragma_token1, 9), (aux_sym_once_pragma_token1, 11),
     (aux_sym_must_call_pragma_token1, 13), (aux_sym_export_pragma_token1, 15),
     (anon_sym_SEMI, 310), (anon_sym_PERCENT, 312), (aux_sym_input_decls_token1, 314),
     (aux_sym_output_decls_token1, 316), (aux_sym_in_out_decls_token1, 318),
     (aux_sym_var_decls_token1, 320), (aux_sym_temp_var_decls_token1, 322),
     (aux_sym_external_var_decls_token1, 324), (aux_sym_global_var_decls_token1, 326),
     (aux_sym_fb_decl_token4, 1586), (aux_sym_method_decl_token1, 330),
     (aux_sym_prog_access_decls_token1, 332), (aux_sym_initial_step_token1, 334),
     (aux_sym_config_init_token1, 336), (aux_sym__stmt_token1, 340), (aux_sym__stmt_token2, 340),
     (aux_sym__stmt_token3, 340), (aux_sym_if_stmt_token1, 342), (aux_sym_case_stmt_token1, 344),
     (aux_sym_for_stmt_token1, 346), (aux_sym_while_stmt_token1, 348),
     (aux_sym_repeat_stmt_token1, 350), (aux_sym_raise_stmt_token1, 352),
     (aux_sym_try_stmt_token1, 354), (aux_sym_try_stmt_token2, 356),
     (aux_sym_catch_clause_token1, 356), (aux_sym_finally_clause_token1, 356), (sym_ld_rung, 358),
     (sym_fbd_network, 360), (sym_c_style_comment, 3), (sym_pascal_style_comment, 3),
     (sym_pragma, 3)]"

lemma ts_parse_row_628_scan: "row_scan tokens_63_2 0 ts_parse_row_628 = Some (Suc (Suc (Suc (Suc 0))))"
  unfolding ts_parse_row_628_def by simp

text \<open>Lines 126286 to 126398.\<close>

definition ts_parse_row_629 :: parse_row where
  "ts_parse_row_629 =
    [(sym_ERR_assign_func_call, 7530), (sym_ERR_unexpected_this_in_path, 2372),
     (sym_ERR_unexpected_super_in_path, 2372), (sym_ERR_fb_variables_after_method, 1572),
     (sym_ERR_var_access_not_allowed, 3160), (sym_ERR_var_config_not_allowed, 3160),
     (sym_ERR_var_global_not_allowed, 3160), (sym_ERR_method_decl_in_body, 3150),
     (sym_extern_pragma, 7490), (sym_wasm_pragma, 3150), (sym_warn_pragma, 7490),
     (sym_allow_pragma, 3140), (sym_test_pragma, 7490), (sym_once_pragma, 7490),
     (sym_must_call_pragma, 7490), (sym_export_pragma, 7490), (sym_pou_pragma, 7194),
     (sym_direct_variable, 7675), (sym_deref_expression, 2373), (sym_variable, 7599),
     (sym_var_access, 2373), (sym_in_out_decls, 3160), (sym_var_decls, 3160),
     (sym_retain_var_decls, 3160), (sym_temp_var_decls, 3160), (sym_external_var_decls, 3160),
     (sym_global_var_decls, 2947), (sym_loc_partly_var_decl, 3160), (sym__fb_variables, 2343),
     (sym_fb_input_decls, 3160), (sym_fb_output_decls, 3160), (sym_no_retain_var_decls, 3160),
     (sym_fb_body, 9417), (sym_method_decl, 2549), (sym_prog_access_decls, 3043), (sym_SFC, 7970),
     (sym_SFC_network, 7612), (sym_initial_step, 7439), (sym_config_init, 3047),
     (sym_variable_access, 7530), (sym_func_call, 2961), (sym_stmt_list, 7970), (sym__stmt, 2024),
     (sym_assign, 3150), (sym_if_stmt, 3150), (sym_case_stmt, 3150), (sym_for_stmt, 3150),
     (sym_while_stmt, 3150), (sym_repeat_stmt, 3150), (sym_raise_stmt, 3150), (sym_try_stmt, 3150),
     (sym_ERR_clause_outside_try, 3150), (sym_begin_path_expression, 2943), (sym_invocation, 2934),
     (sym_any_invocation, 2935), (sym_this_invocation, 2641), (sym_super_invocation, 2641),
     (sym_super_body_invocation, 2935), (sym_path_expression, 2627), (sym_field_expression, 2373),
     (sym_index_expression, 2373), (sym_ladder_diagram, 7970), (sym_fb_diagram, 7970),
     (aux_sym_ERR_fb_variables_after_method_repeat1, 2343), (aux_sym_func_decl_repeat1, 7194),
     (aux_sym_fb_decl_repeat3, 2549), (aux_sym_SFC_repeat1, 7612),
     (aux_sym_stmt_list_repeat1, 2024), (aux_sym_ladder_diagram_repeat1, 8009),
     (aux_sym_fb_diagram_repeat1, 8013), (sym_identifier, 298),
     (aux_sym_ERR_unexpected_this_in_path_token1, 304),
     (aux_sym_ERR_unexpected_super_in_path_token1, 306), (sym_line_comment, 3),
     (anon_sym_LBRACE, 308), (aux_sym_test_pragma_token1, 9), (aux_sym_once_pragma_token1, 11),
     (aux_sym_must_call_pragma_token1, 13), (aux_sym_export_pragma_token1, 15),
     (anon_sym_SEMI, 310), (anon_sym_PERCENT, 312), (aux_sym_input_decls_token1, 314),
     (aux_sym_output_decls_token1, 316), (aux_sym_in_out_decls_token1, 318),
     (aux_sym_var_decls_token1, 320), (aux_sym_temp_var_decls_token1, 322),
     (aux_sym_external_var_decls_token1, 324), (aux_sym_global_var_decls_token1, 326),
     (aux_sym_fb_decl_token4, 1588), (aux_sym_method_decl_token1, 330),
     (aux_sym_prog_access_decls_token1, 332), (aux_sym_initial_step_token1, 334),
     (aux_sym_config_init_token1, 336), (aux_sym__stmt_token1, 340), (aux_sym__stmt_token2, 340),
     (aux_sym__stmt_token3, 340), (aux_sym_if_stmt_token1, 342), (aux_sym_case_stmt_token1, 344),
     (aux_sym_for_stmt_token1, 346), (aux_sym_while_stmt_token1, 348),
     (aux_sym_repeat_stmt_token1, 350), (aux_sym_raise_stmt_token1, 352),
     (aux_sym_try_stmt_token1, 354), (aux_sym_try_stmt_token2, 356),
     (aux_sym_catch_clause_token1, 356), (aux_sym_finally_clause_token1, 356), (sym_ld_rung, 358),
     (sym_fbd_network, 360), (sym_c_style_comment, 3), (sym_pascal_style_comment, 3),
     (sym_pragma, 3)]"

lemma ts_parse_row_629_scan: "row_scan tokens_63_2 0 ts_parse_row_629 = Some (Suc (Suc (Suc (Suc 0))))"
  unfolding ts_parse_row_629_def by simp

text \<open>Lines 126399 to 126511.\<close>

definition ts_parse_row_630 :: parse_row where
  "ts_parse_row_630 =
    [(sym_ERR_assign_func_call, 7530), (sym_ERR_unexpected_this_in_path, 2372),
     (sym_ERR_unexpected_super_in_path, 2372), (sym_ERR_fb_variables_after_method, 1573),
     (sym_ERR_var_access_not_allowed, 3160), (sym_ERR_var_config_not_allowed, 3160),
     (sym_ERR_var_global_not_allowed, 3160), (sym_ERR_method_decl_in_body, 3150),
     (sym_extern_pragma, 7490), (sym_wasm_pragma, 3150), (sym_warn_pragma, 7490),
     (sym_allow_pragma, 3140), (sym_test_pragma, 7490), (sym_once_pragma, 7490),
     (sym_must_call_pragma, 7490), (sym_export_pragma, 7490), (sym_pou_pragma, 7194),
     (sym_direct_variable, 7675), (sym_deref_expression, 2373), (sym_variable, 7599),
     (sym_var_access, 2373), (sym_in_out_decls, 3160), (sym_var_decls, 3160),
     (sym_retain_var_decls, 3160), (sym_temp_var_decls, 3160), (sym_external_var_decls, 3160),
     (sym_global_var_decls, 2947), (sym_loc_partly_var_decl, 3160), (sym__fb_variables, 2347),
     (sym_fb_input_decls, 3160), (sym_fb_output_decls, 3160), (sym_no_retain_var_decls, 3160),
     (sym_fb_body, 9422), (sym_method_decl, 741), (sym_prog_access_decls, 3043), (sym_SFC, 7970),
     (sym_SFC_network, 7612), (sym_initial_step, 7439), (sym_config_init, 3047),
     (sym_variable_access, 7530), (sym_func_call, 2961), (sym_stmt_list, 7970), (sym__stmt, 2024),
     (sym_assign, 3150), (sym_if_stmt, 3150), (sym_case_stmt, 3150), (sym_for_stmt, 3150),
     (sym_while_stmt, 3150), (sym_repeat_stmt, 3150), (sym_raise_stmt, 3150), (sym_try_stmt, 3150),
     (sym_ERR_clause_outside_try, 3150), (sym_begin_path_expression, 2943), (sym_invocation, 2934),
     (sym_any_invocation, 2935), (sym_this_invocation, 2641), (sym_super_invocation, 2641),
     (sym_super_body_invocation, 2935), (sym_path_expression, 2627), (sym_field_expression, 2373),
     (sym_index_expression, 2373), (sym_ladder_diagram, 7970), (sym_fb_diagram, 7970),
     (aux_sym_ERR_fb_variables_after_method_repeat1, 2347), (aux_sym_func_decl_repeat1, 7194),
     (aux_sym_fb_decl_repeat3, 741), (aux_sym_SFC_repeat1, 7612), (aux_sym_stmt_list_repeat1, 2024),
     (aux_sym_ladder_diagram_repeat1, 8009), (aux_sym_fb_diagram_repeat1, 8013),
     (sym_identifier, 298), (aux_sym_ERR_unexpected_this_in_path_token1, 304),
     (aux_sym_ERR_unexpected_super_in_path_token1, 306), (sym_line_comment, 3),
     (anon_sym_LBRACE, 308), (aux_sym_test_pragma_token1, 9), (aux_sym_once_pragma_token1, 11),
     (aux_sym_must_call_pragma_token1, 13), (aux_sym_export_pragma_token1, 15),
     (anon_sym_SEMI, 310), (anon_sym_PERCENT, 312), (aux_sym_input_decls_token1, 314),
     (aux_sym_output_decls_token1, 316), (aux_sym_in_out_decls_token1, 318),
     (aux_sym_var_decls_token1, 320), (aux_sym_temp_var_decls_token1, 322),
     (aux_sym_external_var_decls_token1, 324), (aux_sym_global_var_decls_token1, 326),
     (aux_sym_fb_decl_token4, 1590), (aux_sym_method_decl_token1, 330),
     (aux_sym_prog_access_decls_token1, 332), (aux_sym_initial_step_token1, 334),
     (aux_sym_config_init_token1, 336), (aux_sym__stmt_token1, 340), (aux_sym__stmt_token2, 340),
     (aux_sym__stmt_token3, 340), (aux_sym_if_stmt_token1, 342), (aux_sym_case_stmt_token1, 344),
     (aux_sym_for_stmt_token1, 346), (aux_sym_while_stmt_token1, 348),
     (aux_sym_repeat_stmt_token1, 350), (aux_sym_raise_stmt_token1, 352),
     (aux_sym_try_stmt_token1, 354), (aux_sym_try_stmt_token2, 356),
     (aux_sym_catch_clause_token1, 356), (aux_sym_finally_clause_token1, 356), (sym_ld_rung, 358),
     (sym_fbd_network, 360), (sym_c_style_comment, 3), (sym_pascal_style_comment, 3),
     (sym_pragma, 3)]"

lemma ts_parse_row_630_scan: "row_scan tokens_63_2 0 ts_parse_row_630 = Some (Suc (Suc (Suc (Suc 0))))"
  unfolding ts_parse_row_630_def by simp

text \<open>Lines 126512 to 126624.\<close>

definition ts_parse_row_631 :: parse_row where
  "ts_parse_row_631 =
    [(sym_ERR_assign_func_call, 7530), (sym_ERR_unexpected_this_in_path, 2372),
     (sym_ERR_unexpected_super_in_path, 2372), (sym_ERR_fb_variables_after_method, 1751),
     (sym_ERR_var_access_not_allowed, 3160), (sym_ERR_var_config_not_allowed, 3160),
     (sym_ERR_var_global_not_allowed, 3160), (sym_ERR_method_decl_in_body, 3150),
     (sym_extern_pragma, 7490), (sym_wasm_pragma, 3150), (sym_warn_pragma, 7490),
     (sym_allow_pragma, 3140), (sym_test_pragma, 7490), (sym_once_pragma, 7490),
     (sym_must_call_pragma, 7490), (sym_export_pragma, 7490), (sym_pou_pragma, 7194),
     (sym_direct_variable, 7675), (sym_deref_expression, 2373), (sym_variable, 7599),
     (sym_var_access, 2373), (sym_in_out_decls, 3160), (sym_var_decls, 3160),
     (sym_retain_var_decls, 3160), (sym_temp_var_decls, 3160), (sym_external_var_decls, 3160),
     (sym_global_var_decls, 2947), (sym_loc_partly_var_decl, 3160), (sym__fb_variables, 2343),
     (sym_fb_input_decls, 3160), (sym_fb_output_decls, 3160), (sym_no_retain_var_decls, 3160),
     (sym_fb_body, 9301), (sym_method_decl, 2549), (sym_prog_access_decls, 3043), (sym_SFC, 7970),
     (sym_SFC_network, 7612), (sym_initial_step, 7439), (sym_config_init, 3047),
     (sym_variable_access, 7530), (sym_func_call, 2961), (sym_stmt_list, 7970), (sym__stmt, 2024),
     (sym_assign, 3150), (sym_if_stmt, 3150), (sym_case_stmt, 3150), (sym_for_stmt, 3150),
     (sym_while_stmt, 3150), (sym_repeat_stmt, 3150), (sym_raise_stmt, 3150), (sym_try_stmt, 3150),
     (sym_ERR_clause_outside_try, 3150), (sym_begin_path_expression, 2943), (sym_invocation, 2934),
     (sym_any_invocation, 2935), (sym_this_invocation, 2641), (sym_super_invocation, 2641),
     (sym_super_body_invocation, 2935), (sym_path_expression, 2627), (sym_field_expression, 2373),
     (sym_index_expression, 2373), (sym_ladder_diagram, 7970), (sym_fb_diagram, 7970),
     (aux_sym_ERR_fb_variables_after_method_repeat1, 2343), (aux_sym_func_decl_repeat1, 7194),
     (aux_sym_fb_decl_repeat3, 2549), (aux_sym_SFC_repeat1, 7612),
     (aux_sym_stmt_list_repeat1, 2024), (aux_sym_ladder_diagram_repeat1, 8009),
     (aux_sym_fb_diagram_repeat1, 8013), (sym_identifier, 298),
     (aux_sym_ERR_unexpected_this_in_path_token1, 304),
     (aux_sym_ERR_unexpected_super_in_path_token1, 306), (sym_line_comment, 3),
     (anon_sym_LBRACE, 308), (aux_sym_test_pragma_token1, 9), (aux_sym_once_pragma_token1, 11),
     (aux_sym_must_call_pragma_token1, 13), (aux_sym_export_pragma_token1, 15),
     (anon_sym_SEMI, 310), (anon_sym_PERCENT, 312), (aux_sym_input_decls_token1, 314),
     (aux_sym_output_decls_token1, 316), (aux_sym_in_out_decls_token1, 318),
     (aux_sym_var_decls_token1, 320), (aux_sym_temp_var_decls_token1, 322),
     (aux_sym_external_var_decls_token1, 324), (aux_sym_global_var_decls_token1, 326),
     (aux_sym_fb_decl_token4, 1592), (aux_sym_method_decl_token1, 330),
     (aux_sym_prog_access_decls_token1, 332), (aux_sym_initial_step_token1, 334),
     (aux_sym_config_init_token1, 336), (aux_sym__stmt_token1, 340), (aux_sym__stmt_token2, 340),
     (aux_sym__stmt_token3, 340), (aux_sym_if_stmt_token1, 342), (aux_sym_case_stmt_token1, 344),
     (aux_sym_for_stmt_token1, 346), (aux_sym_while_stmt_token1, 348),
     (aux_sym_repeat_stmt_token1, 350), (aux_sym_raise_stmt_token1, 352),
     (aux_sym_try_stmt_token1, 354), (aux_sym_try_stmt_token2, 356),
     (aux_sym_catch_clause_token1, 356), (aux_sym_finally_clause_token1, 356), (sym_ld_rung, 358),
     (sym_fbd_network, 360), (sym_c_style_comment, 3), (sym_pascal_style_comment, 3),
     (sym_pragma, 3)]"

lemma ts_parse_row_631_scan: "row_scan tokens_63_2 0 ts_parse_row_631 = Some (Suc (Suc (Suc (Suc 0))))"
  unfolding ts_parse_row_631_def by simp

text \<open>Lines 126625 to 126737.\<close>

definition ts_parse_row_632 :: parse_row where
  "ts_parse_row_632 =
    [(sym_ERR_assign_func_call, 7530), (sym_ERR_unexpected_this_in_path, 2372),
     (sym_ERR_unexpected_super_in_path, 2372), (sym_ERR_fb_variables_after_method, 1577),
     (sym_ERR_var_access_not_allowed, 3160), (sym_ERR_var_config_not_allowed, 3160),
     (sym_ERR_var_global_not_allowed, 3160), (sym_ERR_method_decl_in_body, 3150),
     (sym_extern_pragma, 7490), (sym_wasm_pragma, 3150), (sym_warn_pragma, 7490),
     (sym_allow_pragma, 3140), (sym_test_pragma, 7490), (sym_once_pragma, 7490),
     (sym_must_call_pragma, 7490), (sym_export_pragma, 7490), (sym_pou_pragma, 7194),
     (sym_direct_variable, 7675), (sym_deref_expression, 2373), (sym_variable, 7599),
     (sym_var_access, 2373), (sym_in_out_decls, 3160), (sym_var_decls, 3160),
     (sym_retain_var_decls, 3160), (sym_temp_var_decls, 3160), (sym_external_var_decls, 3160),
     (sym_global_var_decls, 2947), (sym_loc_partly_var_decl, 3160), (sym__fb_variables, 2343),
     (sym_fb_input_decls, 3160), (sym_fb_output_decls, 3160), (sym_no_retain_var_decls, 3160),
     (sym_fb_body, 9432), (sym_method_decl, 2549), (sym_prog_access_decls, 3043), (sym_SFC, 7970),
     (sym_SFC_network, 7612), (sym_initial_step, 7439), (sym_config_init, 3047),
     (sym_variable_access, 7530), (sym_func_call, 2961), (sym_stmt_list, 7970), (sym__stmt, 2024),
     (sym_assign, 3150), (sym_if_stmt, 3150), (sym_case_stmt, 3150), (sym_for_stmt, 3150),
     (sym_while_stmt, 3150), (sym_repeat_stmt, 3150), (sym_raise_stmt, 3150), (sym_try_stmt, 3150),
     (sym_ERR_clause_outside_try, 3150), (sym_begin_path_expression, 2943), (sym_invocation, 2934),
     (sym_any_invocation, 2935), (sym_this_invocation, 2641), (sym_super_invocation, 2641),
     (sym_super_body_invocation, 2935), (sym_path_expression, 2627), (sym_field_expression, 2373),
     (sym_index_expression, 2373), (sym_ladder_diagram, 7970), (sym_fb_diagram, 7970),
     (aux_sym_ERR_fb_variables_after_method_repeat1, 2343), (aux_sym_func_decl_repeat1, 7194),
     (aux_sym_fb_decl_repeat3, 2549), (aux_sym_SFC_repeat1, 7612),
     (aux_sym_stmt_list_repeat1, 2024), (aux_sym_ladder_diagram_repeat1, 8009),
     (aux_sym_fb_diagram_repeat1, 8013), (sym_identifier, 298),
     (aux_sym_ERR_unexpected_this_in_path_token1, 304),
     (aux_sym_ERR_unexpected_super_in_path_token1, 306), (sym_line_comment, 3),
     (anon_sym_LBRACE, 308), (aux_sym_test_pragma_token1, 9), (aux_sym_once_pragma_token1, 11),
     (aux_sym_must_call_pragma_token1, 13), (aux_sym_export_pragma_token1, 15),
     (anon_sym_SEMI, 310), (anon_sym_PERCENT, 312), (aux_sym_input_decls_token1, 314),
     (aux_sym_output_decls_token1, 316), (aux_sym_in_out_decls_token1, 318),
     (aux_sym_var_decls_token1, 320), (aux_sym_temp_var_decls_token1, 322),
     (aux_sym_external_var_decls_token1, 324), (aux_sym_global_var_decls_token1, 326),
     (aux_sym_fb_decl_token4, 1594), (aux_sym_method_decl_token1, 330),
     (aux_sym_prog_access_decls_token1, 332), (aux_sym_initial_step_token1, 334),
     (aux_sym_config_init_token1, 336), (aux_sym__stmt_token1, 340), (aux_sym__stmt_token2, 340),
     (aux_sym__stmt_token3, 340), (aux_sym_if_stmt_token1, 342), (aux_sym_case_stmt_token1, 344),
     (aux_sym_for_stmt_token1, 346), (aux_sym_while_stmt_token1, 348),
     (aux_sym_repeat_stmt_token1, 350), (aux_sym_raise_stmt_token1, 352),
     (aux_sym_try_stmt_token1, 354), (aux_sym_try_stmt_token2, 356),
     (aux_sym_catch_clause_token1, 356), (aux_sym_finally_clause_token1, 356), (sym_ld_rung, 358),
     (sym_fbd_network, 360), (sym_c_style_comment, 3), (sym_pascal_style_comment, 3),
     (sym_pragma, 3)]"

lemma ts_parse_row_632_scan: "row_scan tokens_63_2 0 ts_parse_row_632 = Some (Suc (Suc (Suc (Suc 0))))"
  unfolding ts_parse_row_632_def by simp

text \<open>Lines 126738 to 126850.\<close>

definition ts_parse_row_633 :: parse_row where
  "ts_parse_row_633 =
    [(sym_ERR_assign_func_call, 7530), (sym_ERR_unexpected_this_in_path, 2372),
     (sym_ERR_unexpected_super_in_path, 2372), (sym_ERR_fb_variables_after_method, 1578),
     (sym_ERR_var_access_not_allowed, 3160), (sym_ERR_var_config_not_allowed, 3160),
     (sym_ERR_var_global_not_allowed, 3160), (sym_ERR_method_decl_in_body, 3150),
     (sym_extern_pragma, 7490), (sym_wasm_pragma, 3150), (sym_warn_pragma, 7490),
     (sym_allow_pragma, 3140), (sym_test_pragma, 7490), (sym_once_pragma, 7490),
     (sym_must_call_pragma, 7490), (sym_export_pragma, 7490), (sym_pou_pragma, 7194),
     (sym_direct_variable, 7675), (sym_deref_expression, 2373), (sym_variable, 7599),
     (sym_var_access, 2373), (sym_in_out_decls, 3160), (sym_var_decls, 3160),
     (sym_retain_var_decls, 3160), (sym_temp_var_decls, 3160), (sym_external_var_decls, 3160),
     (sym_global_var_decls, 2947), (sym_loc_partly_var_decl, 3160), (sym__fb_variables, 2343),
     (sym_fb_input_decls, 3160), (sym_fb_output_decls, 3160), (sym_no_retain_var_decls, 3160),
     (sym_fb_body, 9456), (sym_method_decl, 2549), (sym_prog_access_decls, 3043), (sym_SFC, 7970),
     (sym_SFC_network, 7612), (sym_initial_step, 7439), (sym_config_init, 3047),
     (sym_variable_access, 7530), (sym_func_call, 2961), (sym_stmt_list, 7970), (sym__stmt, 2024),
     (sym_assign, 3150), (sym_if_stmt, 3150), (sym_case_stmt, 3150), (sym_for_stmt, 3150),
     (sym_while_stmt, 3150), (sym_repeat_stmt, 3150), (sym_raise_stmt, 3150), (sym_try_stmt, 3150),
     (sym_ERR_clause_outside_try, 3150), (sym_begin_path_expression, 2943), (sym_invocation, 2934),
     (sym_any_invocation, 2935), (sym_this_invocation, 2641), (sym_super_invocation, 2641),
     (sym_super_body_invocation, 2935), (sym_path_expression, 2627), (sym_field_expression, 2373),
     (sym_index_expression, 2373), (sym_ladder_diagram, 7970), (sym_fb_diagram, 7970),
     (aux_sym_ERR_fb_variables_after_method_repeat1, 2343), (aux_sym_func_decl_repeat1, 7194),
     (aux_sym_fb_decl_repeat3, 2549), (aux_sym_SFC_repeat1, 7612),
     (aux_sym_stmt_list_repeat1, 2024), (aux_sym_ladder_diagram_repeat1, 8009),
     (aux_sym_fb_diagram_repeat1, 8013), (sym_identifier, 298),
     (aux_sym_ERR_unexpected_this_in_path_token1, 304),
     (aux_sym_ERR_unexpected_super_in_path_token1, 306), (sym_line_comment, 3),
     (anon_sym_LBRACE, 308), (aux_sym_test_pragma_token1, 9), (aux_sym_once_pragma_token1, 11),
     (aux_sym_must_call_pragma_token1, 13), (aux_sym_export_pragma_token1, 15),
     (anon_sym_SEMI, 310), (anon_sym_PERCENT, 312), (aux_sym_input_decls_token1, 314),
     (aux_sym_output_decls_token1, 316), (aux_sym_in_out_decls_token1, 318),
     (aux_sym_var_decls_token1, 320), (aux_sym_temp_var_decls_token1, 322),
     (aux_sym_external_var_decls_token1, 324), (aux_sym_global_var_decls_token1, 326),
     (aux_sym_fb_decl_token4, 1596), (aux_sym_method_decl_token1, 330),
     (aux_sym_prog_access_decls_token1, 332), (aux_sym_initial_step_token1, 334),
     (aux_sym_config_init_token1, 336), (aux_sym__stmt_token1, 340), (aux_sym__stmt_token2, 340),
     (aux_sym__stmt_token3, 340), (aux_sym_if_stmt_token1, 342), (aux_sym_case_stmt_token1, 344),
     (aux_sym_for_stmt_token1, 346), (aux_sym_while_stmt_token1, 348),
     (aux_sym_repeat_stmt_token1, 350), (aux_sym_raise_stmt_token1, 352),
     (aux_sym_try_stmt_token1, 354), (aux_sym_try_stmt_token2, 356),
     (aux_sym_catch_clause_token1, 356), (aux_sym_finally_clause_token1, 356), (sym_ld_rung, 358),
     (sym_fbd_network, 360), (sym_c_style_comment, 3), (sym_pascal_style_comment, 3),
     (sym_pragma, 3)]"

lemma ts_parse_row_633_scan: "row_scan tokens_63_2 0 ts_parse_row_633 = Some (Suc (Suc (Suc (Suc 0))))"
  unfolding ts_parse_row_633_def by simp

text \<open>Lines 126851 to 126963.\<close>

definition ts_parse_row_634 :: parse_row where
  "ts_parse_row_634 =
    [(sym_ERR_assign_func_call, 7530), (sym_ERR_unexpected_this_in_path, 2372),
     (sym_ERR_unexpected_super_in_path, 2372), (sym_ERR_fb_variables_after_method, 1579),
     (sym_ERR_var_access_not_allowed, 3160), (sym_ERR_var_config_not_allowed, 3160),
     (sym_ERR_var_global_not_allowed, 3160), (sym_ERR_method_decl_in_body, 3150),
     (sym_extern_pragma, 7490), (sym_wasm_pragma, 3150), (sym_warn_pragma, 7490),
     (sym_allow_pragma, 3140), (sym_test_pragma, 7490), (sym_once_pragma, 7490),
     (sym_must_call_pragma, 7490), (sym_export_pragma, 7490), (sym_pou_pragma, 7194),
     (sym_direct_variable, 7675), (sym_deref_expression, 2373), (sym_variable, 7599),
     (sym_var_access, 2373), (sym_in_out_decls, 3160), (sym_var_decls, 3160),
     (sym_retain_var_decls, 3160), (sym_temp_var_decls, 3160), (sym_external_var_decls, 3160),
     (sym_global_var_decls, 2947), (sym_loc_partly_var_decl, 3160), (sym__fb_variables, 2343),
     (sym_fb_input_decls, 3160), (sym_fb_output_decls, 3160), (sym_no_retain_var_decls, 3160),
     (sym_fb_body, 9480), (sym_method_decl, 2549), (sym_prog_access_decls, 3043), (sym_SFC, 7970),
     (sym_SFC_network, 7612), (sym_initial_step, 7439), (sym_config_init, 3047),
     (sym_variable_access, 7530), (sym_func_call, 2961), (sym_stmt_list, 7970), (sym__stmt, 2024),
     (sym_assign, 3150), (sym_if_stmt, 3150), (sym_case_stmt, 3150), (sym_for_stmt, 3150),
     (sym_while_stmt, 3150), (sym_repeat_stmt, 3150), (sym_raise_stmt, 3150), (sym_try_stmt, 3150),
     (sym_ERR_clause_outside_try, 3150), (sym_begin_path_expression, 2943), (sym_invocation, 2934),
     (sym_any_invocation, 2935), (sym_this_invocation, 2641), (sym_super_invocation, 2641),
     (sym_super_body_invocation, 2935), (sym_path_expression, 2627), (sym_field_expression, 2373),
     (sym_index_expression, 2373), (sym_ladder_diagram, 7970), (sym_fb_diagram, 7970),
     (aux_sym_ERR_fb_variables_after_method_repeat1, 2343), (aux_sym_func_decl_repeat1, 7194),
     (aux_sym_fb_decl_repeat3, 2549), (aux_sym_SFC_repeat1, 7612),
     (aux_sym_stmt_list_repeat1, 2024), (aux_sym_ladder_diagram_repeat1, 8009),
     (aux_sym_fb_diagram_repeat1, 8013), (sym_identifier, 298),
     (aux_sym_ERR_unexpected_this_in_path_token1, 304),
     (aux_sym_ERR_unexpected_super_in_path_token1, 306), (sym_line_comment, 3),
     (anon_sym_LBRACE, 308), (aux_sym_test_pragma_token1, 9), (aux_sym_once_pragma_token1, 11),
     (aux_sym_must_call_pragma_token1, 13), (aux_sym_export_pragma_token1, 15),
     (anon_sym_SEMI, 310), (anon_sym_PERCENT, 312), (aux_sym_input_decls_token1, 314),
     (aux_sym_output_decls_token1, 316), (aux_sym_in_out_decls_token1, 318),
     (aux_sym_var_decls_token1, 320), (aux_sym_temp_var_decls_token1, 322),
     (aux_sym_external_var_decls_token1, 324), (aux_sym_global_var_decls_token1, 326),
     (aux_sym_fb_decl_token4, 1598), (aux_sym_method_decl_token1, 330),
     (aux_sym_prog_access_decls_token1, 332), (aux_sym_initial_step_token1, 334),
     (aux_sym_config_init_token1, 336), (aux_sym__stmt_token1, 340), (aux_sym__stmt_token2, 340),
     (aux_sym__stmt_token3, 340), (aux_sym_if_stmt_token1, 342), (aux_sym_case_stmt_token1, 344),
     (aux_sym_for_stmt_token1, 346), (aux_sym_while_stmt_token1, 348),
     (aux_sym_repeat_stmt_token1, 350), (aux_sym_raise_stmt_token1, 352),
     (aux_sym_try_stmt_token1, 354), (aux_sym_try_stmt_token2, 356),
     (aux_sym_catch_clause_token1, 356), (aux_sym_finally_clause_token1, 356), (sym_ld_rung, 358),
     (sym_fbd_network, 360), (sym_c_style_comment, 3), (sym_pascal_style_comment, 3),
     (sym_pragma, 3)]"

lemma ts_parse_row_634_scan: "row_scan tokens_63_2 0 ts_parse_row_634 = Some (Suc (Suc (Suc (Suc 0))))"
  unfolding ts_parse_row_634_def by simp

text \<open>Lines 126964 to 127076.\<close>

definition ts_parse_row_635 :: parse_row where
  "ts_parse_row_635 =
    [(sym_ERR_assign_func_call, 7530), (sym_ERR_unexpected_this_in_path, 2372),
     (sym_ERR_unexpected_super_in_path, 2372), (sym_ERR_fb_variables_after_method, 1580),
     (sym_ERR_var_access_not_allowed, 3160), (sym_ERR_var_config_not_allowed, 3160),
     (sym_ERR_var_global_not_allowed, 3160), (sym_ERR_method_decl_in_body, 3150),
     (sym_extern_pragma, 7490), (sym_wasm_pragma, 3150), (sym_warn_pragma, 7490),
     (sym_allow_pragma, 3140), (sym_test_pragma, 7490), (sym_once_pragma, 7490),
     (sym_must_call_pragma, 7490), (sym_export_pragma, 7490), (sym_pou_pragma, 7194),
     (sym_direct_variable, 7675), (sym_deref_expression, 2373), (sym_variable, 7599),
     (sym_var_access, 2373), (sym_in_out_decls, 3160), (sym_var_decls, 3160),
     (sym_retain_var_decls, 3160), (sym_temp_var_decls, 3160), (sym_external_var_decls, 3160),
     (sym_global_var_decls, 2947), (sym_loc_partly_var_decl, 3160), (sym__fb_variables, 2343),
     (sym_fb_input_decls, 3160), (sym_fb_output_decls, 3160), (sym_no_retain_var_decls, 3160),
     (sym_fb_body, 9491), (sym_method_decl, 2549), (sym_prog_access_decls, 3043), (sym_SFC, 7970),
     (sym_SFC_network, 7612), (sym_initial_step, 7439), (sym_config_init, 3047),
     (sym_variable_access, 7530), (sym_func_call, 2961), (sym_stmt_list, 7970), (sym__stmt, 2024),
     (sym_assign, 3150), (sym_if_stmt, 3150), (sym_case_stmt, 3150), (sym_for_stmt, 3150),
     (sym_while_stmt, 3150), (sym_repeat_stmt, 3150), (sym_raise_stmt, 3150), (sym_try_stmt, 3150),
     (sym_ERR_clause_outside_try, 3150), (sym_begin_path_expression, 2943), (sym_invocation, 2934),
     (sym_any_invocation, 2935), (sym_this_invocation, 2641), (sym_super_invocation, 2641),
     (sym_super_body_invocation, 2935), (sym_path_expression, 2627), (sym_field_expression, 2373),
     (sym_index_expression, 2373), (sym_ladder_diagram, 7970), (sym_fb_diagram, 7970),
     (aux_sym_ERR_fb_variables_after_method_repeat1, 2343), (aux_sym_func_decl_repeat1, 7194),
     (aux_sym_fb_decl_repeat3, 2549), (aux_sym_SFC_repeat1, 7612),
     (aux_sym_stmt_list_repeat1, 2024), (aux_sym_ladder_diagram_repeat1, 8009),
     (aux_sym_fb_diagram_repeat1, 8013), (sym_identifier, 298),
     (aux_sym_ERR_unexpected_this_in_path_token1, 304),
     (aux_sym_ERR_unexpected_super_in_path_token1, 306), (sym_line_comment, 3),
     (anon_sym_LBRACE, 308), (aux_sym_test_pragma_token1, 9), (aux_sym_once_pragma_token1, 11),
     (aux_sym_must_call_pragma_token1, 13), (aux_sym_export_pragma_token1, 15),
     (anon_sym_SEMI, 310), (anon_sym_PERCENT, 312), (aux_sym_input_decls_token1, 314),
     (aux_sym_output_decls_token1, 316), (aux_sym_in_out_decls_token1, 318),
     (aux_sym_var_decls_token1, 320), (aux_sym_temp_var_decls_token1, 322),
     (aux_sym_external_var_decls_token1, 324), (aux_sym_global_var_decls_token1, 326),
     (aux_sym_fb_decl_token4, 1600), (aux_sym_method_decl_token1, 330),
     (aux_sym_prog_access_decls_token1, 332), (aux_sym_initial_step_token1, 334),
     (aux_sym_config_init_token1, 336), (aux_sym__stmt_token1, 340), (aux_sym__stmt_token2, 340),
     (aux_sym__stmt_token3, 340), (aux_sym_if_stmt_token1, 342), (aux_sym_case_stmt_token1, 344),
     (aux_sym_for_stmt_token1, 346), (aux_sym_while_stmt_token1, 348),
     (aux_sym_repeat_stmt_token1, 350), (aux_sym_raise_stmt_token1, 352),
     (aux_sym_try_stmt_token1, 354), (aux_sym_try_stmt_token2, 356),
     (aux_sym_catch_clause_token1, 356), (aux_sym_finally_clause_token1, 356), (sym_ld_rung, 358),
     (sym_fbd_network, 360), (sym_c_style_comment, 3), (sym_pascal_style_comment, 3),
     (sym_pragma, 3)]"

lemma ts_parse_row_635_scan: "row_scan tokens_63_2 0 ts_parse_row_635 = Some (Suc (Suc (Suc (Suc 0))))"
  unfolding ts_parse_row_635_def by simp

text \<open>Lines 127077 to 127189.\<close>

definition ts_parse_row_636 :: parse_row where
  "ts_parse_row_636 =
    [(sym_ERR_assign_func_call, 7530), (sym_ERR_unexpected_this_in_path, 2372),
     (sym_ERR_unexpected_super_in_path, 2372), (sym_ERR_fb_variables_after_method, 1581),
     (sym_ERR_var_access_not_allowed, 3160), (sym_ERR_var_config_not_allowed, 3160),
     (sym_ERR_var_global_not_allowed, 3160), (sym_ERR_method_decl_in_body, 3150),
     (sym_extern_pragma, 7490), (sym_wasm_pragma, 3150), (sym_warn_pragma, 7490),
     (sym_allow_pragma, 3140), (sym_test_pragma, 7490), (sym_once_pragma, 7490),
     (sym_must_call_pragma, 7490), (sym_export_pragma, 7490), (sym_pou_pragma, 7194),
     (sym_direct_variable, 7675), (sym_deref_expression, 2373), (sym_variable, 7599),
     (sym_var_access, 2373), (sym_in_out_decls, 3160), (sym_var_decls, 3160),
     (sym_retain_var_decls, 3160), (sym_temp_var_decls, 3160), (sym_external_var_decls, 3160),
     (sym_global_var_decls, 2947), (sym_loc_partly_var_decl, 3160), (sym__fb_variables, 2347),
     (sym_fb_input_decls, 3160), (sym_fb_output_decls, 3160), (sym_no_retain_var_decls, 3160),
     (sym_fb_body, 9497), (sym_method_decl, 744), (sym_prog_access_decls, 3043), (sym_SFC, 7970),
     (sym_SFC_network, 7612), (sym_initial_step, 7439), (sym_config_init, 3047),
     (sym_variable_access, 7530), (sym_func_call, 2961), (sym_stmt_list, 7970), (sym__stmt, 2024),
     (sym_assign, 3150), (sym_if_stmt, 3150), (sym_case_stmt, 3150), (sym_for_stmt, 3150),
     (sym_while_stmt, 3150), (sym_repeat_stmt, 3150), (sym_raise_stmt, 3150), (sym_try_stmt, 3150),
     (sym_ERR_clause_outside_try, 3150), (sym_begin_path_expression, 2943), (sym_invocation, 2934),
     (sym_any_invocation, 2935), (sym_this_invocation, 2641), (sym_super_invocation, 2641),
     (sym_super_body_invocation, 2935), (sym_path_expression, 2627), (sym_field_expression, 2373),
     (sym_index_expression, 2373), (sym_ladder_diagram, 7970), (sym_fb_diagram, 7970),
     (aux_sym_ERR_fb_variables_after_method_repeat1, 2347), (aux_sym_func_decl_repeat1, 7194),
     (aux_sym_fb_decl_repeat3, 744), (aux_sym_SFC_repeat1, 7612), (aux_sym_stmt_list_repeat1, 2024),
     (aux_sym_ladder_diagram_repeat1, 8009), (aux_sym_fb_diagram_repeat1, 8013),
     (sym_identifier, 298), (aux_sym_ERR_unexpected_this_in_path_token1, 304),
     (aux_sym_ERR_unexpected_super_in_path_token1, 306), (sym_line_comment, 3),
     (anon_sym_LBRACE, 308), (aux_sym_test_pragma_token1, 9), (aux_sym_once_pragma_token1, 11),
     (aux_sym_must_call_pragma_token1, 13), (aux_sym_export_pragma_token1, 15),
     (anon_sym_SEMI, 310), (anon_sym_PERCENT, 312), (aux_sym_input_decls_token1, 314),
     (aux_sym_output_decls_token1, 316), (aux_sym_in_out_decls_token1, 318),
     (aux_sym_var_decls_token1, 320), (aux_sym_temp_var_decls_token1, 322),
     (aux_sym_external_var_decls_token1, 324), (aux_sym_global_var_decls_token1, 326),
     (aux_sym_fb_decl_token4, 1602), (aux_sym_method_decl_token1, 330),
     (aux_sym_prog_access_decls_token1, 332), (aux_sym_initial_step_token1, 334),
     (aux_sym_config_init_token1, 336), (aux_sym__stmt_token1, 340), (aux_sym__stmt_token2, 340),
     (aux_sym__stmt_token3, 340), (aux_sym_if_stmt_token1, 342), (aux_sym_case_stmt_token1, 344),
     (aux_sym_for_stmt_token1, 346), (aux_sym_while_stmt_token1, 348),
     (aux_sym_repeat_stmt_token1, 350), (aux_sym_raise_stmt_token1, 352),
     (aux_sym_try_stmt_token1, 354), (aux_sym_try_stmt_token2, 356),
     (aux_sym_catch_clause_token1, 356), (aux_sym_finally_clause_token1, 356), (sym_ld_rung, 358),
     (sym_fbd_network, 360), (sym_c_style_comment, 3), (sym_pascal_style_comment, 3),
     (sym_pragma, 3)]"

lemma ts_parse_row_636_scan: "row_scan tokens_63_2 0 ts_parse_row_636 = Some (Suc (Suc (Suc (Suc 0))))"
  unfolding ts_parse_row_636_def by simp

text \<open>Lines 127190 to 127302.\<close>

definition ts_parse_row_637 :: parse_row where
  "ts_parse_row_637 =
    [(sym_ERR_assign_func_call, 7530), (sym_ERR_unexpected_this_in_path, 2372),
     (sym_ERR_unexpected_super_in_path, 2372), (sym_ERR_fb_variables_after_method, 1582),
     (sym_ERR_var_access_not_allowed, 3160), (sym_ERR_var_config_not_allowed, 3160),
     (sym_ERR_var_global_not_allowed, 3160), (sym_ERR_method_decl_in_body, 3150),
     (sym_extern_pragma, 7490), (sym_wasm_pragma, 3150), (sym_warn_pragma, 7490),
     (sym_allow_pragma, 3140), (sym_test_pragma, 7490), (sym_once_pragma, 7490),
     (sym_must_call_pragma, 7490), (sym_export_pragma, 7490), (sym_pou_pragma, 7194),
     (sym_direct_variable, 7675), (sym_deref_expression, 2373), (sym_variable, 7599),
     (sym_var_access, 2373), (sym_in_out_decls, 3160), (sym_var_decls, 3160),
     (sym_retain_var_decls, 3160), (sym_temp_var_decls, 3160), (sym_external_var_decls, 3160),
     (sym_global_var_decls, 2947), (sym_loc_partly_var_decl, 3160), (sym__fb_variables, 2343),
     (sym_fb_input_decls, 3160), (sym_fb_output_decls, 3160), (sym_no_retain_var_decls, 3160),
     (sym_fb_body, 9501), (sym_method_decl, 2549), (sym_prog_access_decls, 3043), (sym_SFC, 7970),
     (sym_SFC_network, 7612), (sym_initial_step, 7439), (sym_config_init, 3047),
     (sym_variable_access, 7530), (sym_func_call, 2961), (sym_stmt_list, 7970), (sym__stmt, 2024),
     (sym_assign, 3150), (sym_if_stmt, 3150), (sym_case_stmt, 3150), (sym_for_stmt, 3150),
     (sym_while_stmt, 3150), (sym_repeat_stmt, 3150), (sym_raise_stmt, 3150), (sym_try_stmt, 3150),
     (sym_ERR_clause_outside_try, 3150), (sym_begin_path_expression, 2943), (sym_invocation, 2934),
     (sym_any_invocation, 2935), (sym_this_invocation, 2641), (sym_super_invocation, 2641),
     (sym_super_body_invocation, 2935), (sym_path_expression, 2627), (sym_field_expression, 2373),
     (sym_index_expression, 2373), (sym_ladder_diagram, 7970), (sym_fb_diagram, 7970),
     (aux_sym_ERR_fb_variables_after_method_repeat1, 2343), (aux_sym_func_decl_repeat1, 7194),
     (aux_sym_fb_decl_repeat3, 2549), (aux_sym_SFC_repeat1, 7612),
     (aux_sym_stmt_list_repeat1, 2024), (aux_sym_ladder_diagram_repeat1, 8009),
     (aux_sym_fb_diagram_repeat1, 8013), (sym_identifier, 298),
     (aux_sym_ERR_unexpected_this_in_path_token1, 304),
     (aux_sym_ERR_unexpected_super_in_path_token1, 306), (sym_line_comment, 3),
     (anon_sym_LBRACE, 308), (aux_sym_test_pragma_token1, 9), (aux_sym_once_pragma_token1, 11),
     (aux_sym_must_call_pragma_token1, 13), (aux_sym_export_pragma_token1, 15),
     (anon_sym_SEMI, 310), (anon_sym_PERCENT, 312), (aux_sym_input_decls_token1, 314),
     (aux_sym_output_decls_token1, 316), (aux_sym_in_out_decls_token1, 318),
     (aux_sym_var_decls_token1, 320), (aux_sym_temp_var_decls_token1, 322),
     (aux_sym_external_var_decls_token1, 324), (aux_sym_global_var_decls_token1, 326),
     (aux_sym_fb_decl_token4, 1604), (aux_sym_method_decl_token1, 330),
     (aux_sym_prog_access_decls_token1, 332), (aux_sym_initial_step_token1, 334),
     (aux_sym_config_init_token1, 336), (aux_sym__stmt_token1, 340), (aux_sym__stmt_token2, 340),
     (aux_sym__stmt_token3, 340), (aux_sym_if_stmt_token1, 342), (aux_sym_case_stmt_token1, 344),
     (aux_sym_for_stmt_token1, 346), (aux_sym_while_stmt_token1, 348),
     (aux_sym_repeat_stmt_token1, 350), (aux_sym_raise_stmt_token1, 352),
     (aux_sym_try_stmt_token1, 354), (aux_sym_try_stmt_token2, 356),
     (aux_sym_catch_clause_token1, 356), (aux_sym_finally_clause_token1, 356), (sym_ld_rung, 358),
     (sym_fbd_network, 360), (sym_c_style_comment, 3), (sym_pascal_style_comment, 3),
     (sym_pragma, 3)]"

lemma ts_parse_row_637_scan: "row_scan tokens_63_2 0 ts_parse_row_637 = Some (Suc (Suc (Suc (Suc 0))))"
  unfolding ts_parse_row_637_def by simp

text \<open>Lines 127303 to 127415.\<close>

definition ts_parse_row_638 :: parse_row where
  "ts_parse_row_638 =
    [(sym_ERR_assign_func_call, 7530), (sym_ERR_unexpected_this_in_path, 2372),
     (sym_ERR_unexpected_super_in_path, 2372), (sym_ERR_fb_variables_after_method, 1583),
     (sym_ERR_var_access_not_allowed, 3160), (sym_ERR_var_config_not_allowed, 3160),
     (sym_ERR_var_global_not_allowed, 3160), (sym_ERR_method_decl_in_body, 3150),
     (sym_extern_pragma, 7490), (sym_wasm_pragma, 3150), (sym_warn_pragma, 7490),
     (sym_allow_pragma, 3140), (sym_test_pragma, 7490), (sym_once_pragma, 7490),
     (sym_must_call_pragma, 7490), (sym_export_pragma, 7490), (sym_pou_pragma, 7194),
     (sym_direct_variable, 7675), (sym_deref_expression, 2373), (sym_variable, 7599),
     (sym_var_access, 2373), (sym_in_out_decls, 3160), (sym_var_decls, 3160),
     (sym_retain_var_decls, 3160), (sym_temp_var_decls, 3160), (sym_external_var_decls, 3160),
     (sym_global_var_decls, 2947), (sym_loc_partly_var_decl, 3160), (sym__fb_variables, 2347),
     (sym_fb_input_decls, 3160), (sym_fb_output_decls, 3160), (sym_no_retain_var_decls, 3160),
     (sym_fb_body, 9506), (sym_method_decl, 745), (sym_prog_access_decls, 3043), (sym_SFC, 7970),
     (sym_SFC_network, 7612), (sym_initial_step, 7439), (sym_config_init, 3047),
     (sym_variable_access, 7530), (sym_func_call, 2961), (sym_stmt_list, 7970), (sym__stmt, 2024),
     (sym_assign, 3150), (sym_if_stmt, 3150), (sym_case_stmt, 3150), (sym_for_stmt, 3150),
     (sym_while_stmt, 3150), (sym_repeat_stmt, 3150), (sym_raise_stmt, 3150), (sym_try_stmt, 3150),
     (sym_ERR_clause_outside_try, 3150), (sym_begin_path_expression, 2943), (sym_invocation, 2934),
     (sym_any_invocation, 2935), (sym_this_invocation, 2641), (sym_super_invocation, 2641),
     (sym_super_body_invocation, 2935), (sym_path_expression, 2627), (sym_field_expression, 2373),
     (sym_index_expression, 2373), (sym_ladder_diagram, 7970), (sym_fb_diagram, 7970),
     (aux_sym_ERR_fb_variables_after_method_repeat1, 2347), (aux_sym_func_decl_repeat1, 7194),
     (aux_sym_fb_decl_repeat3, 745), (aux_sym_SFC_repeat1, 7612), (aux_sym_stmt_list_repeat1, 2024),
     (aux_sym_ladder_diagram_repeat1, 8009), (aux_sym_fb_diagram_repeat1, 8013),
     (sym_identifier, 298), (aux_sym_ERR_unexpected_this_in_path_token1, 304),
     (aux_sym_ERR_unexpected_super_in_path_token1, 306), (sym_line_comment, 3),
     (anon_sym_LBRACE, 308), (aux_sym_test_pragma_token1, 9), (aux_sym_once_pragma_token1, 11),
     (aux_sym_must_call_pragma_token1, 13), (aux_sym_export_pragma_token1, 15),
     (anon_sym_SEMI, 310), (anon_sym_PERCENT, 312), (aux_sym_input_decls_token1, 314),
     (aux_sym_output_decls_token1, 316), (aux_sym_in_out_decls_token1, 318),
     (aux_sym_var_decls_token1, 320), (aux_sym_temp_var_decls_token1, 322),
     (aux_sym_external_var_decls_token1, 324), (aux_sym_global_var_decls_token1, 326),
     (aux_sym_fb_decl_token4, 1606), (aux_sym_method_decl_token1, 330),
     (aux_sym_prog_access_decls_token1, 332), (aux_sym_initial_step_token1, 334),
     (aux_sym_config_init_token1, 336), (aux_sym__stmt_token1, 340), (aux_sym__stmt_token2, 340),
     (aux_sym__stmt_token3, 340), (aux_sym_if_stmt_token1, 342), (aux_sym_case_stmt_token1, 344),
     (aux_sym_for_stmt_token1, 346), (aux_sym_while_stmt_token1, 348),
     (aux_sym_repeat_stmt_token1, 350), (aux_sym_raise_stmt_token1, 352),
     (aux_sym_try_stmt_token1, 354), (aux_sym_try_stmt_token2, 356),
     (aux_sym_catch_clause_token1, 356), (aux_sym_finally_clause_token1, 356), (sym_ld_rung, 358),
     (sym_fbd_network, 360), (sym_c_style_comment, 3), (sym_pascal_style_comment, 3),
     (sym_pragma, 3)]"

lemma ts_parse_row_638_scan: "row_scan tokens_63_2 0 ts_parse_row_638 = Some (Suc (Suc (Suc (Suc 0))))"
  unfolding ts_parse_row_638_def by simp

text \<open>Lines 127416 to 127528.\<close>

definition ts_parse_row_639 :: parse_row where
  "ts_parse_row_639 =
    [(sym_ERR_assign_func_call, 7530), (sym_ERR_unexpected_this_in_path, 2372),
     (sym_ERR_unexpected_super_in_path, 2372), (sym_ERR_fb_variables_after_method, 1271),
     (sym_ERR_var_access_not_allowed, 3160), (sym_ERR_var_config_not_allowed, 3160),
     (sym_ERR_var_global_not_allowed, 3160), (sym_ERR_method_decl_in_body, 3150),
     (sym_extern_pragma, 7490), (sym_wasm_pragma, 3150), (sym_warn_pragma, 7490),
     (sym_allow_pragma, 3140), (sym_test_pragma, 7490), (sym_once_pragma, 7490),
     (sym_must_call_pragma, 7490), (sym_export_pragma, 7490), (sym_pou_pragma, 7194),
     (sym_direct_variable, 7675), (sym_deref_expression, 2373), (sym_variable, 7599),
     (sym_var_access, 2373), (sym_in_out_decls, 3160), (sym_var_decls, 3160),
     (sym_retain_var_decls, 3160), (sym_temp_var_decls, 3160), (sym_external_var_decls, 3160),
     (sym_global_var_decls, 2947), (sym_loc_partly_var_decl, 3160), (sym__fb_variables, 2347),
     (sym_fb_input_decls, 3160), (sym_fb_output_decls, 3160), (sym_no_retain_var_decls, 3160),
     (sym_fb_body, 9684), (sym_method_decl, 631), (sym_prog_access_decls, 3043), (sym_SFC, 7970),
     (sym_SFC_network, 7612), (sym_initial_step, 7439), (sym_config_init, 3047),
     (sym_variable_access, 7530), (sym_func_call, 2961), (sym_stmt_list, 7970), (sym__stmt, 2024),
     (sym_assign, 3150), (sym_if_stmt, 3150), (sym_case_stmt, 3150), (sym_for_stmt, 3150),
     (sym_while_stmt, 3150), (sym_repeat_stmt, 3150), (sym_raise_stmt, 3150), (sym_try_stmt, 3150),
     (sym_ERR_clause_outside_try, 3150), (sym_begin_path_expression, 2943), (sym_invocation, 2934),
     (sym_any_invocation, 2935), (sym_this_invocation, 2641), (sym_super_invocation, 2641),
     (sym_super_body_invocation, 2935), (sym_path_expression, 2627), (sym_field_expression, 2373),
     (sym_index_expression, 2373), (sym_ladder_diagram, 7970), (sym_fb_diagram, 7970),
     (aux_sym_ERR_fb_variables_after_method_repeat1, 2347), (aux_sym_func_decl_repeat1, 7194),
     (aux_sym_fb_decl_repeat3, 631), (aux_sym_SFC_repeat1, 7612), (aux_sym_stmt_list_repeat1, 2024),
     (aux_sym_ladder_diagram_repeat1, 8009), (aux_sym_fb_diagram_repeat1, 8013),
     (sym_identifier, 298), (aux_sym_ERR_unexpected_this_in_path_token1, 304),
     (aux_sym_ERR_unexpected_super_in_path_token1, 306), (sym_line_comment, 3),
     (anon_sym_LBRACE, 308), (aux_sym_test_pragma_token1, 9), (aux_sym_once_pragma_token1, 11),
     (aux_sym_must_call_pragma_token1, 13), (aux_sym_export_pragma_token1, 15),
     (anon_sym_SEMI, 310), (anon_sym_PERCENT, 312), (aux_sym_input_decls_token1, 314),
     (aux_sym_output_decls_token1, 316), (aux_sym_in_out_decls_token1, 318),
     (aux_sym_var_decls_token1, 320), (aux_sym_temp_var_decls_token1, 322),
     (aux_sym_external_var_decls_token1, 324), (aux_sym_global_var_decls_token1, 326),
     (aux_sym_fb_decl_token4, 1608), (aux_sym_method_decl_token1, 330),
     (aux_sym_prog_access_decls_token1, 332), (aux_sym_initial_step_token1, 334),
     (aux_sym_config_init_token1, 336), (aux_sym__stmt_token1, 340), (aux_sym__stmt_token2, 340),
     (aux_sym__stmt_token3, 340), (aux_sym_if_stmt_token1, 342), (aux_sym_case_stmt_token1, 344),
     (aux_sym_for_stmt_token1, 346), (aux_sym_while_stmt_token1, 348),
     (aux_sym_repeat_stmt_token1, 350), (aux_sym_raise_stmt_token1, 352),
     (aux_sym_try_stmt_token1, 354), (aux_sym_try_stmt_token2, 356),
     (aux_sym_catch_clause_token1, 356), (aux_sym_finally_clause_token1, 356), (sym_ld_rung, 358),
     (sym_fbd_network, 360), (sym_c_style_comment, 3), (sym_pascal_style_comment, 3),
     (sym_pragma, 3)]"

lemma ts_parse_row_639_scan: "row_scan tokens_63_2 0 ts_parse_row_639 = Some (Suc (Suc (Suc (Suc 0))))"
  unfolding ts_parse_row_639_def by simp

text \<open>Lines 127529 to 127641.\<close>

definition ts_parse_row_640 :: parse_row where
  "ts_parse_row_640 =
    [(sym_ERR_assign_func_call, 7530), (sym_ERR_unexpected_this_in_path, 2372),
     (sym_ERR_unexpected_super_in_path, 2372), (sym_ERR_fb_variables_after_method, 1587),
     (sym_ERR_var_access_not_allowed, 3160), (sym_ERR_var_config_not_allowed, 3160),
     (sym_ERR_var_global_not_allowed, 3160), (sym_ERR_method_decl_in_body, 3150),
     (sym_extern_pragma, 7490), (sym_wasm_pragma, 3150), (sym_warn_pragma, 7490),
     (sym_allow_pragma, 3140), (sym_test_pragma, 7490), (sym_once_pragma, 7490),
     (sym_must_call_pragma, 7490), (sym_export_pragma, 7490), (sym_pou_pragma, 7194),
     (sym_direct_variable, 7675), (sym_deref_expression, 2373), (sym_variable, 7599),
     (sym_var_access, 2373), (sym_in_out_decls, 3160), (sym_var_decls, 3160),
     (sym_retain_var_decls, 3160), (sym_temp_var_decls, 3160), (sym_external_var_decls, 3160),
     (sym_global_var_decls, 2947), (sym_loc_partly_var_decl, 3160), (sym__fb_variables, 2343),
     (sym_fb_input_decls, 3160), (sym_fb_output_decls, 3160), (sym_no_retain_var_decls, 3160),
     (sym_fb_body, 9515), (sym_method_decl, 2549), (sym_prog_access_decls, 3043), (sym_SFC, 7970),
     (sym_SFC_network, 7612), (sym_initial_step, 7439), (sym_config_init, 3047),
     (sym_variable_access, 7530), (sym_func_call, 2961), (sym_stmt_list, 7970), (sym__stmt, 2024),
     (sym_assign, 3150), (sym_if_stmt, 3150), (sym_case_stmt, 3150), (sym_for_stmt, 3150),
     (sym_while_stmt, 3150), (sym_repeat_stmt, 3150), (sym_raise_stmt, 3150), (sym_try_stmt, 3150),
     (sym_ERR_clause_outside_try, 3150), (sym_begin_path_expression, 2943), (sym_invocation, 2934),
     (sym_any_invocation, 2935), (sym_this_invocation, 2641), (sym_super_invocation, 2641),
     (sym_super_body_invocation, 2935), (sym_path_expression, 2627), (sym_field_expression, 2373),
     (sym_index_expression, 2373), (sym_ladder_diagram, 7970), (sym_fb_diagram, 7970),
     (aux_sym_ERR_fb_variables_after_method_repeat1, 2343), (aux_sym_func_decl_repeat1, 7194),
     (aux_sym_fb_decl_repeat3, 2549), (aux_sym_SFC_repeat1, 7612),
     (aux_sym_stmt_list_repeat1, 2024), (aux_sym_ladder_diagram_repeat1, 8009),
     (aux_sym_fb_diagram_repeat1, 8013), (sym_identifier, 298),
     (aux_sym_ERR_unexpected_this_in_path_token1, 304),
     (aux_sym_ERR_unexpected_super_in_path_token1, 306), (sym_line_comment, 3),
     (anon_sym_LBRACE, 308), (aux_sym_test_pragma_token1, 9), (aux_sym_once_pragma_token1, 11),
     (aux_sym_must_call_pragma_token1, 13), (aux_sym_export_pragma_token1, 15),
     (anon_sym_SEMI, 310), (anon_sym_PERCENT, 312), (aux_sym_input_decls_token1, 314),
     (aux_sym_output_decls_token1, 316), (aux_sym_in_out_decls_token1, 318),
     (aux_sym_var_decls_token1, 320), (aux_sym_temp_var_decls_token1, 322),
     (aux_sym_external_var_decls_token1, 324), (aux_sym_global_var_decls_token1, 326),
     (aux_sym_fb_decl_token4, 1610), (aux_sym_method_decl_token1, 330),
     (aux_sym_prog_access_decls_token1, 332), (aux_sym_initial_step_token1, 334),
     (aux_sym_config_init_token1, 336), (aux_sym__stmt_token1, 340), (aux_sym__stmt_token2, 340),
     (aux_sym__stmt_token3, 340), (aux_sym_if_stmt_token1, 342), (aux_sym_case_stmt_token1, 344),
     (aux_sym_for_stmt_token1, 346), (aux_sym_while_stmt_token1, 348),
     (aux_sym_repeat_stmt_token1, 350), (aux_sym_raise_stmt_token1, 352),
     (aux_sym_try_stmt_token1, 354), (aux_sym_try_stmt_token2, 356),
     (aux_sym_catch_clause_token1, 356), (aux_sym_finally_clause_token1, 356), (sym_ld_rung, 358),
     (sym_fbd_network, 360), (sym_c_style_comment, 3), (sym_pascal_style_comment, 3),
     (sym_pragma, 3)]"

lemma ts_parse_row_640_scan: "row_scan tokens_63_2 0 ts_parse_row_640 = Some (Suc (Suc (Suc (Suc 0))))"
  unfolding ts_parse_row_640_def by simp

text \<open>Lines 127642 to 127754.\<close>

definition ts_parse_row_641 :: parse_row where
  "ts_parse_row_641 =
    [(sym_ERR_assign_func_call, 7530), (sym_ERR_unexpected_this_in_path, 2372),
     (sym_ERR_unexpected_super_in_path, 2372), (sym_ERR_fb_variables_after_method, 1588),
     (sym_ERR_var_access_not_allowed, 3160), (sym_ERR_var_config_not_allowed, 3160),
     (sym_ERR_var_global_not_allowed, 3160), (sym_ERR_method_decl_in_body, 3150),
     (sym_extern_pragma, 7490), (sym_wasm_pragma, 3150), (sym_warn_pragma, 7490),
     (sym_allow_pragma, 3140), (sym_test_pragma, 7490), (sym_once_pragma, 7490),
     (sym_must_call_pragma, 7490), (sym_export_pragma, 7490), (sym_pou_pragma, 7194),
     (sym_direct_variable, 7675), (sym_deref_expression, 2373), (sym_variable, 7599),
     (sym_var_access, 2373), (sym_in_out_decls, 3160), (sym_var_decls, 3160),
     (sym_retain_var_decls, 3160), (sym_temp_var_decls, 3160), (sym_external_var_decls, 3160),
     (sym_global_var_decls, 2947), (sym_loc_partly_var_decl, 3160), (sym__fb_variables, 2347),
     (sym_fb_input_decls, 3160), (sym_fb_output_decls, 3160), (sym_no_retain_var_decls, 3160),
     (sym_fb_body, 9530), (sym_method_decl, 748), (sym_prog_access_decls, 3043), (sym_SFC, 7970),
     (sym_SFC_network, 7612), (sym_initial_step, 7439), (sym_config_init, 3047),
     (sym_variable_access, 7530), (sym_func_call, 2961), (sym_stmt_list, 7970), (sym__stmt, 2024),
     (sym_assign, 3150), (sym_if_stmt, 3150), (sym_case_stmt, 3150), (sym_for_stmt, 3150),
     (sym_while_stmt, 3150), (sym_repeat_stmt, 3150), (sym_raise_stmt, 3150), (sym_try_stmt, 3150),
     (sym_ERR_clause_outside_try, 3150), (sym_begin_path_expression, 2943), (sym_invocation, 2934),
     (sym_any_invocation, 2935), (sym_this_invocation, 2641), (sym_super_invocation, 2641),
     (sym_super_body_invocation, 2935), (sym_path_expression, 2627), (sym_field_expression, 2373),
     (sym_index_expression, 2373), (sym_ladder_diagram, 7970), (sym_fb_diagram, 7970),
     (aux_sym_ERR_fb_variables_after_method_repeat1, 2347), (aux_sym_func_decl_repeat1, 7194),
     (aux_sym_fb_decl_repeat3, 748), (aux_sym_SFC_repeat1, 7612), (aux_sym_stmt_list_repeat1, 2024),
     (aux_sym_ladder_diagram_repeat1, 8009), (aux_sym_fb_diagram_repeat1, 8013),
     (sym_identifier, 298), (aux_sym_ERR_unexpected_this_in_path_token1, 304),
     (aux_sym_ERR_unexpected_super_in_path_token1, 306), (sym_line_comment, 3),
     (anon_sym_LBRACE, 308), (aux_sym_test_pragma_token1, 9), (aux_sym_once_pragma_token1, 11),
     (aux_sym_must_call_pragma_token1, 13), (aux_sym_export_pragma_token1, 15),
     (anon_sym_SEMI, 310), (anon_sym_PERCENT, 312), (aux_sym_input_decls_token1, 314),
     (aux_sym_output_decls_token1, 316), (aux_sym_in_out_decls_token1, 318),
     (aux_sym_var_decls_token1, 320), (aux_sym_temp_var_decls_token1, 322),
     (aux_sym_external_var_decls_token1, 324), (aux_sym_global_var_decls_token1, 326),
     (aux_sym_fb_decl_token4, 1612), (aux_sym_method_decl_token1, 330),
     (aux_sym_prog_access_decls_token1, 332), (aux_sym_initial_step_token1, 334),
     (aux_sym_config_init_token1, 336), (aux_sym__stmt_token1, 340), (aux_sym__stmt_token2, 340),
     (aux_sym__stmt_token3, 340), (aux_sym_if_stmt_token1, 342), (aux_sym_case_stmt_token1, 344),
     (aux_sym_for_stmt_token1, 346), (aux_sym_while_stmt_token1, 348),
     (aux_sym_repeat_stmt_token1, 350), (aux_sym_raise_stmt_token1, 352),
     (aux_sym_try_stmt_token1, 354), (aux_sym_try_stmt_token2, 356),
     (aux_sym_catch_clause_token1, 356), (aux_sym_finally_clause_token1, 356), (sym_ld_rung, 358),
     (sym_fbd_network, 360), (sym_c_style_comment, 3), (sym_pascal_style_comment, 3),
     (sym_pragma, 3)]"

lemma ts_parse_row_641_scan: "row_scan tokens_63_2 0 ts_parse_row_641 = Some (Suc (Suc (Suc (Suc 0))))"
  unfolding ts_parse_row_641_def by simp

text \<open>Lines 127755 to 127867.\<close>

definition ts_parse_row_642 :: parse_row where
  "ts_parse_row_642 =
    [(sym_ERR_assign_func_call, 7530), (sym_ERR_unexpected_this_in_path, 2372),
     (sym_ERR_unexpected_super_in_path, 2372), (sym_ERR_fb_variables_after_method, 1766),
     (sym_ERR_var_access_not_allowed, 3160), (sym_ERR_var_config_not_allowed, 3160),
     (sym_ERR_var_global_not_allowed, 3160), (sym_ERR_method_decl_in_body, 3150),
     (sym_extern_pragma, 7490), (sym_wasm_pragma, 3150), (sym_warn_pragma, 7490),
     (sym_allow_pragma, 3140), (sym_test_pragma, 7490), (sym_once_pragma, 7490),
     (sym_must_call_pragma, 7490), (sym_export_pragma, 7490), (sym_pou_pragma, 7194),
     (sym_direct_variable, 7675), (sym_deref_expression, 2373), (sym_variable, 7599),
     (sym_var_access, 2373), (sym_in_out_decls, 3160), (sym_var_decls, 3160),
     (sym_retain_var_decls, 3160), (sym_temp_var_decls, 3160), (sym_external_var_decls, 3160),
     (sym_global_var_decls, 2947), (sym_loc_partly_var_decl, 3160), (sym__fb_variables, 2343),
     (sym_fb_input_decls, 3160), (sym_fb_output_decls, 3160), (sym_no_retain_var_decls, 3160),
     (sym_fb_body, 9344), (sym_method_decl, 2549), (sym_prog_access_decls, 3043), (sym_SFC, 7970),
     (sym_SFC_network, 7612), (sym_initial_step, 7439), (sym_config_init, 3047),
     (sym_variable_access, 7530), (sym_func_call, 2961), (sym_stmt_list, 7970), (sym__stmt, 2024),
     (sym_assign, 3150), (sym_if_stmt, 3150), (sym_case_stmt, 3150), (sym_for_stmt, 3150),
     (sym_while_stmt, 3150), (sym_repeat_stmt, 3150), (sym_raise_stmt, 3150), (sym_try_stmt, 3150),
     (sym_ERR_clause_outside_try, 3150), (sym_begin_path_expression, 2943), (sym_invocation, 2934),
     (sym_any_invocation, 2935), (sym_this_invocation, 2641), (sym_super_invocation, 2641),
     (sym_super_body_invocation, 2935), (sym_path_expression, 2627), (sym_field_expression, 2373),
     (sym_index_expression, 2373), (sym_ladder_diagram, 7970), (sym_fb_diagram, 7970),
     (aux_sym_ERR_fb_variables_after_method_repeat1, 2343), (aux_sym_func_decl_repeat1, 7194),
     (aux_sym_fb_decl_repeat3, 2549), (aux_sym_SFC_repeat1, 7612),
     (aux_sym_stmt_list_repeat1, 2024), (aux_sym_ladder_diagram_repeat1, 8009),
     (aux_sym_fb_diagram_repeat1, 8013), (sym_identifier, 298),
     (aux_sym_ERR_unexpected_this_in_path_token1, 304),
     (aux_sym_ERR_unexpected_super_in_path_token1, 306), (sym_line_comment, 3),
     (anon_sym_LBRACE, 308), (aux_sym_test_pragma_token1, 9), (aux_sym_once_pragma_token1, 11),
     (aux_sym_must_call_pragma_token1, 13), (aux_sym_export_pragma_token1, 15),
     (anon_sym_SEMI, 310), (anon_sym_PERCENT, 312), (aux_sym_input_decls_token1, 314),
     (aux_sym_output_decls_token1, 316), (aux_sym_in_out_decls_token1, 318),
     (aux_sym_var_decls_token1, 320), (aux_sym_temp_var_decls_token1, 322),
     (aux_sym_external_var_decls_token1, 324), (aux_sym_global_var_decls_token1, 326),
     (aux_sym_fb_decl_token4, 1614), (aux_sym_method_decl_token1, 330),
     (aux_sym_prog_access_decls_token1, 332), (aux_sym_initial_step_token1, 334),
     (aux_sym_config_init_token1, 336), (aux_sym__stmt_token1, 340), (aux_sym__stmt_token2, 340),
     (aux_sym__stmt_token3, 340), (aux_sym_if_stmt_token1, 342), (aux_sym_case_stmt_token1, 344),
     (aux_sym_for_stmt_token1, 346), (aux_sym_while_stmt_token1, 348),
     (aux_sym_repeat_stmt_token1, 350), (aux_sym_raise_stmt_token1, 352),
     (aux_sym_try_stmt_token1, 354), (aux_sym_try_stmt_token2, 356),
     (aux_sym_catch_clause_token1, 356), (aux_sym_finally_clause_token1, 356), (sym_ld_rung, 358),
     (sym_fbd_network, 360), (sym_c_style_comment, 3), (sym_pascal_style_comment, 3),
     (sym_pragma, 3)]"

lemma ts_parse_row_642_scan: "row_scan tokens_63_2 0 ts_parse_row_642 = Some (Suc (Suc (Suc (Suc 0))))"
  unfolding ts_parse_row_642_def by simp

text \<open>Lines 127868 to 127980.\<close>

definition ts_parse_row_643 :: parse_row where
  "ts_parse_row_643 =
    [(sym_ERR_assign_func_call, 7530), (sym_ERR_unexpected_this_in_path, 2372),
     (sym_ERR_unexpected_super_in_path, 2372), (sym_ERR_fb_variables_after_method, 1768),
     (sym_ERR_var_access_not_allowed, 3160), (sym_ERR_var_config_not_allowed, 3160),
     (sym_ERR_var_global_not_allowed, 3160), (sym_ERR_method_decl_in_body, 3150),
     (sym_extern_pragma, 7490), (sym_wasm_pragma, 3150), (sym_warn_pragma, 7490),
     (sym_allow_pragma, 3140), (sym_test_pragma, 7490), (sym_once_pragma, 7490),
     (sym_must_call_pragma, 7490), (sym_export_pragma, 7490), (sym_pou_pragma, 7194),
     (sym_direct_variable, 7675), (sym_deref_expression, 2373), (sym_variable, 7599),
     (sym_var_access, 2373), (sym_in_out_decls, 3160), (sym_var_decls, 3160),
     (sym_retain_var_decls, 3160), (sym_temp_var_decls, 3160), (sym_external_var_decls, 3160),
     (sym_global_var_decls, 2947), (sym_loc_partly_var_decl, 3160), (sym__fb_variables, 2347),
     (sym_fb_input_decls, 3160), (sym_fb_output_decls, 3160), (sym_no_retain_var_decls, 3160),
     (sym_fb_body, 9355), (sym_method_decl, 381), (sym_prog_access_decls, 3043), (sym_SFC, 7970),
     (sym_SFC_network, 7612), (sym_initial_step, 7439), (sym_config_init, 3047),
     (sym_variable_access, 7530), (sym_func_call, 2961), (sym_stmt_list, 7970), (sym__stmt, 2024),
     (sym_assign, 3150), (sym_if_stmt, 3150), (sym_case_stmt, 3150), (sym_for_stmt, 3150),
     (sym_while_stmt, 3150), (sym_repeat_stmt, 3150), (sym_raise_stmt, 3150), (sym_try_stmt, 3150),
     (sym_ERR_clause_outside_try, 3150), (sym_begin_path_expression, 2943), (sym_invocation, 2934),
     (sym_any_invocation, 2935), (sym_this_invocation, 2641), (sym_super_invocation, 2641),
     (sym_super_body_invocation, 2935), (sym_path_expression, 2627), (sym_field_expression, 2373),
     (sym_index_expression, 2373), (sym_ladder_diagram, 7970), (sym_fb_diagram, 7970),
     (aux_sym_ERR_fb_variables_after_method_repeat1, 2347), (aux_sym_func_decl_repeat1, 7194),
     (aux_sym_fb_decl_repeat3, 381), (aux_sym_SFC_repeat1, 7612), (aux_sym_stmt_list_repeat1, 2024),
     (aux_sym_ladder_diagram_repeat1, 8009), (aux_sym_fb_diagram_repeat1, 8013),
     (sym_identifier, 298), (aux_sym_ERR_unexpected_this_in_path_token1, 304),
     (aux_sym_ERR_unexpected_super_in_path_token1, 306), (sym_line_comment, 3),
     (anon_sym_LBRACE, 308), (aux_sym_test_pragma_token1, 9), (aux_sym_once_pragma_token1, 11),
     (aux_sym_must_call_pragma_token1, 13), (aux_sym_export_pragma_token1, 15),
     (anon_sym_SEMI, 310), (anon_sym_PERCENT, 312), (aux_sym_input_decls_token1, 314),
     (aux_sym_output_decls_token1, 316), (aux_sym_in_out_decls_token1, 318),
     (aux_sym_var_decls_token1, 320), (aux_sym_temp_var_decls_token1, 322),
     (aux_sym_external_var_decls_token1, 324), (aux_sym_global_var_decls_token1, 326),
     (aux_sym_fb_decl_token4, 1616), (aux_sym_method_decl_token1, 330),
     (aux_sym_prog_access_decls_token1, 332), (aux_sym_initial_step_token1, 334),
     (aux_sym_config_init_token1, 336), (aux_sym__stmt_token1, 340), (aux_sym__stmt_token2, 340),
     (aux_sym__stmt_token3, 340), (aux_sym_if_stmt_token1, 342), (aux_sym_case_stmt_token1, 344),
     (aux_sym_for_stmt_token1, 346), (aux_sym_while_stmt_token1, 348),
     (aux_sym_repeat_stmt_token1, 350), (aux_sym_raise_stmt_token1, 352),
     (aux_sym_try_stmt_token1, 354), (aux_sym_try_stmt_token2, 356),
     (aux_sym_catch_clause_token1, 356), (aux_sym_finally_clause_token1, 356), (sym_ld_rung, 358),
     (sym_fbd_network, 360), (sym_c_style_comment, 3), (sym_pascal_style_comment, 3),
     (sym_pragma, 3)]"

lemma ts_parse_row_643_scan: "row_scan tokens_63_2 0 ts_parse_row_643 = Some (Suc (Suc (Suc (Suc 0))))"
  unfolding ts_parse_row_643_def by simp

text \<open>Lines 127981 to 128093.\<close>

definition ts_parse_row_644 :: parse_row where
  "ts_parse_row_644 =
    [(sym_ERR_assign_func_call, 7530), (sym_ERR_unexpected_this_in_path, 2372),
     (sym_ERR_unexpected_super_in_path, 2372), (sym_ERR_fb_variables_after_method, 1594),
     (sym_ERR_var_access_not_allowed, 3160), (sym_ERR_var_config_not_allowed, 3160),
     (sym_ERR_var_global_not_allowed, 3160), (sym_ERR_method_decl_in_body, 3150),
     (sym_extern_pragma, 7490), (sym_wasm_pragma, 3150), (sym_warn_pragma, 7490),
     (sym_allow_pragma, 3140), (sym_test_pragma, 7490), (sym_once_pragma, 7490),
     (sym_must_call_pragma, 7490), (sym_export_pragma, 7490), (sym_pou_pragma, 7194),
     (sym_direct_variable, 7675), (sym_deref_expression, 2373), (sym_variable, 7599),
     (sym_var_access, 2373), (sym_in_out_decls, 3160), (sym_var_decls, 3160),
     (sym_retain_var_decls, 3160), (sym_temp_var_decls, 3160), (sym_external_var_decls, 3160),
     (sym_global_var_decls, 2947), (sym_loc_partly_var_decl, 3160), (sym__fb_variables, 2343),
     (sym_fb_input_decls, 3160), (sym_fb_output_decls, 3160), (sym_no_retain_var_decls, 3160),
     (sym_fb_body, 9543), (sym_method_decl, 2549), (sym_prog_access_decls, 3043), (sym_SFC, 7970),
     (sym_SFC_network, 7612), (sym_initial_step, 7439), (sym_config_init, 3047),
     (sym_variable_access, 7530), (sym_func_call, 2961), (sym_stmt_list, 7970), (sym__stmt, 2024),
     (sym_assign, 3150), (sym_if_stmt, 3150), (sym_case_stmt, 3150), (sym_for_stmt, 3150),
     (sym_while_stmt, 3150), (sym_repeat_stmt, 3150), (sym_raise_stmt, 3150), (sym_try_stmt, 3150),
     (sym_ERR_clause_outside_try, 3150), (sym_begin_path_expression, 2943), (sym_invocation, 2934),
     (sym_any_invocation, 2935), (sym_this_invocation, 2641), (sym_super_invocation, 2641),
     (sym_super_body_invocation, 2935), (sym_path_expression, 2627), (sym_field_expression, 2373),
     (sym_index_expression, 2373), (sym_ladder_diagram, 7970), (sym_fb_diagram, 7970),
     (aux_sym_ERR_fb_variables_after_method_repeat1, 2343), (aux_sym_func_decl_repeat1, 7194),
     (aux_sym_fb_decl_repeat3, 2549), (aux_sym_SFC_repeat1, 7612),
     (aux_sym_stmt_list_repeat1, 2024), (aux_sym_ladder_diagram_repeat1, 8009),
     (aux_sym_fb_diagram_repeat1, 8013), (sym_identifier, 298),
     (aux_sym_ERR_unexpected_this_in_path_token1, 304),
     (aux_sym_ERR_unexpected_super_in_path_token1, 306), (sym_line_comment, 3),
     (anon_sym_LBRACE, 308), (aux_sym_test_pragma_token1, 9), (aux_sym_once_pragma_token1, 11),
     (aux_sym_must_call_pragma_token1, 13), (aux_sym_export_pragma_token1, 15),
     (anon_sym_SEMI, 310), (anon_sym_PERCENT, 312), (aux_sym_input_decls_token1, 314),
     (aux_sym_output_decls_token1, 316), (aux_sym_in_out_decls_token1, 318),
     (aux_sym_var_decls_token1, 320), (aux_sym_temp_var_decls_token1, 322),
     (aux_sym_external_var_decls_token1, 324), (aux_sym_global_var_decls_token1, 326),
     (aux_sym_fb_decl_token4, 1618), (aux_sym_method_decl_token1, 330),
     (aux_sym_prog_access_decls_token1, 332), (aux_sym_initial_step_token1, 334),
     (aux_sym_config_init_token1, 336), (aux_sym__stmt_token1, 340), (aux_sym__stmt_token2, 340),
     (aux_sym__stmt_token3, 340), (aux_sym_if_stmt_token1, 342), (aux_sym_case_stmt_token1, 344),
     (aux_sym_for_stmt_token1, 346), (aux_sym_while_stmt_token1, 348),
     (aux_sym_repeat_stmt_token1, 350), (aux_sym_raise_stmt_token1, 352),
     (aux_sym_try_stmt_token1, 354), (aux_sym_try_stmt_token2, 356),
     (aux_sym_catch_clause_token1, 356), (aux_sym_finally_clause_token1, 356), (sym_ld_rung, 358),
     (sym_fbd_network, 360), (sym_c_style_comment, 3), (sym_pascal_style_comment, 3),
     (sym_pragma, 3)]"

lemma ts_parse_row_644_scan: "row_scan tokens_63_2 0 ts_parse_row_644 = Some (Suc (Suc (Suc (Suc 0))))"
  unfolding ts_parse_row_644_def by simp

text \<open>Lines 128094 to 128206.\<close>

definition ts_parse_row_645 :: parse_row where
  "ts_parse_row_645 =
    [(sym_ERR_assign_func_call, 7530), (sym_ERR_unexpected_this_in_path, 2372),
     (sym_ERR_unexpected_super_in_path, 2372), (sym_ERR_fb_variables_after_method, 1595),
     (sym_ERR_var_access_not_allowed, 3160), (sym_ERR_var_config_not_allowed, 3160),
     (sym_ERR_var_global_not_allowed, 3160), (sym_ERR_method_decl_in_body, 3150),
     (sym_extern_pragma, 7490), (sym_wasm_pragma, 3150), (sym_warn_pragma, 7490),
     (sym_allow_pragma, 3140), (sym_test_pragma, 7490), (sym_once_pragma, 7490),
     (sym_must_call_pragma, 7490), (sym_export_pragma, 7490), (sym_pou_pragma, 7194),
     (sym_direct_variable, 7675), (sym_deref_expression, 2373), (sym_variable, 7599),
     (sym_var_access, 2373), (sym_in_out_decls, 3160), (sym_var_decls, 3160),
     (sym_retain_var_decls, 3160), (sym_temp_var_decls, 3160), (sym_external_var_decls, 3160),
     (sym_global_var_decls, 2947), (sym_loc_partly_var_decl, 3160), (sym__fb_variables, 2343),
     (sym_fb_input_decls, 3160), (sym_fb_output_decls, 3160), (sym_no_retain_var_decls, 3160),
     (sym_fb_body, 9558), (sym_method_decl, 2549), (sym_prog_access_decls, 3043), (sym_SFC, 7970),
     (sym_SFC_network, 7612), (sym_initial_step, 7439), (sym_config_init, 3047),
     (sym_variable_access, 7530), (sym_func_call, 2961), (sym_stmt_list, 7970), (sym__stmt, 2024),
     (sym_assign, 3150), (sym_if_stmt, 3150), (sym_case_stmt, 3150), (sym_for_stmt, 3150),
     (sym_while_stmt, 3150), (sym_repeat_stmt, 3150), (sym_raise_stmt, 3150), (sym_try_stmt, 3150),
     (sym_ERR_clause_outside_try, 3150), (sym_begin_path_expression, 2943), (sym_invocation, 2934),
     (sym_any_invocation, 2935), (sym_this_invocation, 2641), (sym_super_invocation, 2641),
     (sym_super_body_invocation, 2935), (sym_path_expression, 2627), (sym_field_expression, 2373),
     (sym_index_expression, 2373), (sym_ladder_diagram, 7970), (sym_fb_diagram, 7970),
     (aux_sym_ERR_fb_variables_after_method_repeat1, 2343), (aux_sym_func_decl_repeat1, 7194),
     (aux_sym_fb_decl_repeat3, 2549), (aux_sym_SFC_repeat1, 7612),
     (aux_sym_stmt_list_repeat1, 2024), (aux_sym_ladder_diagram_repeat1, 8009),
     (aux_sym_fb_diagram_repeat1, 8013), (sym_identifier, 298),
     (aux_sym_ERR_unexpected_this_in_path_token1, 304),
     (aux_sym_ERR_unexpected_super_in_path_token1, 306), (sym_line_comment, 3),
     (anon_sym_LBRACE, 308), (aux_sym_test_pragma_token1, 9), (aux_sym_once_pragma_token1, 11),
     (aux_sym_must_call_pragma_token1, 13), (aux_sym_export_pragma_token1, 15),
     (anon_sym_SEMI, 310), (anon_sym_PERCENT, 312), (aux_sym_input_decls_token1, 314),
     (aux_sym_output_decls_token1, 316), (aux_sym_in_out_decls_token1, 318),
     (aux_sym_var_decls_token1, 320), (aux_sym_temp_var_decls_token1, 322),
     (aux_sym_external_var_decls_token1, 324), (aux_sym_global_var_decls_token1, 326),
     (aux_sym_fb_decl_token4, 1620), (aux_sym_method_decl_token1, 330),
     (aux_sym_prog_access_decls_token1, 332), (aux_sym_initial_step_token1, 334),
     (aux_sym_config_init_token1, 336), (aux_sym__stmt_token1, 340), (aux_sym__stmt_token2, 340),
     (aux_sym__stmt_token3, 340), (aux_sym_if_stmt_token1, 342), (aux_sym_case_stmt_token1, 344),
     (aux_sym_for_stmt_token1, 346), (aux_sym_while_stmt_token1, 348),
     (aux_sym_repeat_stmt_token1, 350), (aux_sym_raise_stmt_token1, 352),
     (aux_sym_try_stmt_token1, 354), (aux_sym_try_stmt_token2, 356),
     (aux_sym_catch_clause_token1, 356), (aux_sym_finally_clause_token1, 356), (sym_ld_rung, 358),
     (sym_fbd_network, 360), (sym_c_style_comment, 3), (sym_pascal_style_comment, 3),
     (sym_pragma, 3)]"

lemma ts_parse_row_645_scan: "row_scan tokens_63_2 0 ts_parse_row_645 = Some (Suc (Suc (Suc (Suc 0))))"
  unfolding ts_parse_row_645_def by simp

text \<open>Lines 128207 to 128319.\<close>

definition ts_parse_row_646 :: parse_row where
  "ts_parse_row_646 =
    [(sym_ERR_assign_func_call, 7530), (sym_ERR_unexpected_this_in_path, 2372),
     (sym_ERR_unexpected_super_in_path, 2372), (sym_ERR_fb_variables_after_method, 1596),
     (sym_ERR_var_access_not_allowed, 3160), (sym_ERR_var_config_not_allowed, 3160),
     (sym_ERR_var_global_not_allowed, 3160), (sym_ERR_method_decl_in_body, 3150),
     (sym_extern_pragma, 7490), (sym_wasm_pragma, 3150), (sym_warn_pragma, 7490),
     (sym_allow_pragma, 3140), (sym_test_pragma, 7490), (sym_once_pragma, 7490),
     (sym_must_call_pragma, 7490), (sym_export_pragma, 7490), (sym_pou_pragma, 7194),
     (sym_direct_variable, 7675), (sym_deref_expression, 2373), (sym_variable, 7599),
     (sym_var_access, 2373), (sym_in_out_decls, 3160), (sym_var_decls, 3160),
     (sym_retain_var_decls, 3160), (sym_temp_var_decls, 3160), (sym_external_var_decls, 3160),
     (sym_global_var_decls, 2947), (sym_loc_partly_var_decl, 3160), (sym__fb_variables, 2343),
     (sym_fb_input_decls, 3160), (sym_fb_output_decls, 3160), (sym_no_retain_var_decls, 3160),
     (sym_fb_body, 9568), (sym_method_decl, 2549), (sym_prog_access_decls, 3043), (sym_SFC, 7970),
     (sym_SFC_network, 7612), (sym_initial_step, 7439), (sym_config_init, 3047),
     (sym_variable_access, 7530), (sym_func_call, 2961), (sym_stmt_list, 7970), (sym__stmt, 2024),
     (sym_assign, 3150), (sym_if_stmt, 3150), (sym_case_stmt, 3150), (sym_for_stmt, 3150),
     (sym_while_stmt, 3150), (sym_repeat_stmt, 3150), (sym_raise_stmt, 3150), (sym_try_stmt, 3150),
     (sym_ERR_clause_outside_try, 3150), (sym_begin_path_expression, 2943), (sym_invocation, 2934),
     (sym_any_invocation, 2935), (sym_this_invocation, 2641), (sym_super_invocation, 2641),
     (sym_super_body_invocation, 2935), (sym_path_expression, 2627), (sym_field_expression, 2373),
     (sym_index_expression, 2373), (sym_ladder_diagram, 7970), (sym_fb_diagram, 7970),
     (aux_sym_ERR_fb_variables_after_method_repeat1, 2343), (aux_sym_func_decl_repeat1, 7194),
     (aux_sym_fb_decl_repeat3, 2549), (aux_sym_SFC_repeat1, 7612),
     (aux_sym_stmt_list_repeat1, 2024), (aux_sym_ladder_diagram_repeat1, 8009),
     (aux_sym_fb_diagram_repeat1, 8013), (sym_identifier, 298),
     (aux_sym_ERR_unexpected_this_in_path_token1, 304),
     (aux_sym_ERR_unexpected_super_in_path_token1, 306), (sym_line_comment, 3),
     (anon_sym_LBRACE, 308), (aux_sym_test_pragma_token1, 9), (aux_sym_once_pragma_token1, 11),
     (aux_sym_must_call_pragma_token1, 13), (aux_sym_export_pragma_token1, 15),
     (anon_sym_SEMI, 310), (anon_sym_PERCENT, 312), (aux_sym_input_decls_token1, 314),
     (aux_sym_output_decls_token1, 316), (aux_sym_in_out_decls_token1, 318),
     (aux_sym_var_decls_token1, 320), (aux_sym_temp_var_decls_token1, 322),
     (aux_sym_external_var_decls_token1, 324), (aux_sym_global_var_decls_token1, 326),
     (aux_sym_fb_decl_token4, 1622), (aux_sym_method_decl_token1, 330),
     (aux_sym_prog_access_decls_token1, 332), (aux_sym_initial_step_token1, 334),
     (aux_sym_config_init_token1, 336), (aux_sym__stmt_token1, 340), (aux_sym__stmt_token2, 340),
     (aux_sym__stmt_token3, 340), (aux_sym_if_stmt_token1, 342), (aux_sym_case_stmt_token1, 344),
     (aux_sym_for_stmt_token1, 346), (aux_sym_while_stmt_token1, 348),
     (aux_sym_repeat_stmt_token1, 350), (aux_sym_raise_stmt_token1, 352),
     (aux_sym_try_stmt_token1, 354), (aux_sym_try_stmt_token2, 356),
     (aux_sym_catch_clause_token1, 356), (aux_sym_finally_clause_token1, 356), (sym_ld_rung, 358),
     (sym_fbd_network, 360), (sym_c_style_comment, 3), (sym_pascal_style_comment, 3),
     (sym_pragma, 3)]"

lemma ts_parse_row_646_scan: "row_scan tokens_63_2 0 ts_parse_row_646 = Some (Suc (Suc (Suc (Suc 0))))"
  unfolding ts_parse_row_646_def by simp

text \<open>Lines 128320 to 128432.\<close>

definition ts_parse_row_647 :: parse_row where
  "ts_parse_row_647 =
    [(sym_ERR_assign_func_call, 7530), (sym_ERR_unexpected_this_in_path, 2372),
     (sym_ERR_unexpected_super_in_path, 2372), (sym_ERR_fb_variables_after_method, 1597),
     (sym_ERR_var_access_not_allowed, 3160), (sym_ERR_var_config_not_allowed, 3160),
     (sym_ERR_var_global_not_allowed, 3160), (sym_ERR_method_decl_in_body, 3150),
     (sym_extern_pragma, 7490), (sym_wasm_pragma, 3150), (sym_warn_pragma, 7490),
     (sym_allow_pragma, 3140), (sym_test_pragma, 7490), (sym_once_pragma, 7490),
     (sym_must_call_pragma, 7490), (sym_export_pragma, 7490), (sym_pou_pragma, 7194),
     (sym_direct_variable, 7675), (sym_deref_expression, 2373), (sym_variable, 7599),
     (sym_var_access, 2373), (sym_in_out_decls, 3160), (sym_var_decls, 3160),
     (sym_retain_var_decls, 3160), (sym_temp_var_decls, 3160), (sym_external_var_decls, 3160),
     (sym_global_var_decls, 2947), (sym_loc_partly_var_decl, 3160), (sym__fb_variables, 2347),
     (sym_fb_input_decls, 3160), (sym_fb_output_decls, 3160), (sym_no_retain_var_decls, 3160),
     (sym_fb_body, 9574), (sym_method_decl, 754), (sym_prog_access_decls, 3043), (sym_SFC, 7970),
     (sym_SFC_network, 7612), (sym_initial_step, 7439), (sym_config_init, 3047),
     (sym_variable_access, 7530), (sym_func_call, 2961), (sym_stmt_list, 7970), (sym__stmt, 2024),
     (sym_assign, 3150), (sym_if_stmt, 3150), (sym_case_stmt, 3150), (sym_for_stmt, 3150),
     (sym_while_stmt, 3150), (sym_repeat_stmt, 3150), (sym_raise_stmt, 3150), (sym_try_stmt, 3150),
     (sym_ERR_clause_outside_try, 3150), (sym_begin_path_expression, 2943), (sym_invocation, 2934),
     (sym_any_invocation, 2935), (sym_this_invocation, 2641), (sym_super_invocation, 2641),
     (sym_super_body_invocation, 2935), (sym_path_expression, 2627), (sym_field_expression, 2373),
     (sym_index_expression, 2373), (sym_ladder_diagram, 7970), (sym_fb_diagram, 7970),
     (aux_sym_ERR_fb_variables_after_method_repeat1, 2347), (aux_sym_func_decl_repeat1, 7194),
     (aux_sym_fb_decl_repeat3, 754), (aux_sym_SFC_repeat1, 7612), (aux_sym_stmt_list_repeat1, 2024),
     (aux_sym_ladder_diagram_repeat1, 8009), (aux_sym_fb_diagram_repeat1, 8013),
     (sym_identifier, 298), (aux_sym_ERR_unexpected_this_in_path_token1, 304),
     (aux_sym_ERR_unexpected_super_in_path_token1, 306), (sym_line_comment, 3),
     (anon_sym_LBRACE, 308), (aux_sym_test_pragma_token1, 9), (aux_sym_once_pragma_token1, 11),
     (aux_sym_must_call_pragma_token1, 13), (aux_sym_export_pragma_token1, 15),
     (anon_sym_SEMI, 310), (anon_sym_PERCENT, 312), (aux_sym_input_decls_token1, 314),
     (aux_sym_output_decls_token1, 316), (aux_sym_in_out_decls_token1, 318),
     (aux_sym_var_decls_token1, 320), (aux_sym_temp_var_decls_token1, 322),
     (aux_sym_external_var_decls_token1, 324), (aux_sym_global_var_decls_token1, 326),
     (aux_sym_fb_decl_token4, 1624), (aux_sym_method_decl_token1, 330),
     (aux_sym_prog_access_decls_token1, 332), (aux_sym_initial_step_token1, 334),
     (aux_sym_config_init_token1, 336), (aux_sym__stmt_token1, 340), (aux_sym__stmt_token2, 340),
     (aux_sym__stmt_token3, 340), (aux_sym_if_stmt_token1, 342), (aux_sym_case_stmt_token1, 344),
     (aux_sym_for_stmt_token1, 346), (aux_sym_while_stmt_token1, 348),
     (aux_sym_repeat_stmt_token1, 350), (aux_sym_raise_stmt_token1, 352),
     (aux_sym_try_stmt_token1, 354), (aux_sym_try_stmt_token2, 356),
     (aux_sym_catch_clause_token1, 356), (aux_sym_finally_clause_token1, 356), (sym_ld_rung, 358),
     (sym_fbd_network, 360), (sym_c_style_comment, 3), (sym_pascal_style_comment, 3),
     (sym_pragma, 3)]"

lemma ts_parse_row_647_scan: "row_scan tokens_63_2 0 ts_parse_row_647 = Some (Suc (Suc (Suc (Suc 0))))"
  unfolding ts_parse_row_647_def by simp

text \<open>Lines 128433 to 128545.\<close>

definition ts_parse_row_648 :: parse_row where
  "ts_parse_row_648 =
    [(sym_ERR_assign_func_call, 7530), (sym_ERR_unexpected_this_in_path, 2372),
     (sym_ERR_unexpected_super_in_path, 2372), (sym_ERR_fb_variables_after_method, 1598),
     (sym_ERR_var_access_not_allowed, 3160), (sym_ERR_var_config_not_allowed, 3160),
     (sym_ERR_var_global_not_allowed, 3160), (sym_ERR_method_decl_in_body, 3150),
     (sym_extern_pragma, 7490), (sym_wasm_pragma, 3150), (sym_warn_pragma, 7490),
     (sym_allow_pragma, 3140), (sym_test_pragma, 7490), (sym_once_pragma, 7490),
     (sym_must_call_pragma, 7490), (sym_export_pragma, 7490), (sym_pou_pragma, 7194),
     (sym_direct_variable, 7675), (sym_deref_expression, 2373), (sym_variable, 7599),
     (sym_var_access, 2373), (sym_in_out_decls, 3160), (sym_var_decls, 3160),
     (sym_retain_var_decls, 3160), (sym_temp_var_decls, 3160), (sym_external_var_decls, 3160),
     (sym_global_var_decls, 2947), (sym_loc_partly_var_decl, 3160), (sym__fb_variables, 2343),
     (sym_fb_input_decls, 3160), (sym_fb_output_decls, 3160), (sym_no_retain_var_decls, 3160),
     (sym_fb_body, 9578), (sym_method_decl, 2549), (sym_prog_access_decls, 3043), (sym_SFC, 7970),
     (sym_SFC_network, 7612), (sym_initial_step, 7439), (sym_config_init, 3047),
     (sym_variable_access, 7530), (sym_func_call, 2961), (sym_stmt_list, 7970), (sym__stmt, 2024),
     (sym_assign, 3150), (sym_if_stmt, 3150), (sym_case_stmt, 3150), (sym_for_stmt, 3150),
     (sym_while_stmt, 3150), (sym_repeat_stmt, 3150), (sym_raise_stmt, 3150), (sym_try_stmt, 3150),
     (sym_ERR_clause_outside_try, 3150), (sym_begin_path_expression, 2943), (sym_invocation, 2934),
     (sym_any_invocation, 2935), (sym_this_invocation, 2641), (sym_super_invocation, 2641),
     (sym_super_body_invocation, 2935), (sym_path_expression, 2627), (sym_field_expression, 2373),
     (sym_index_expression, 2373), (sym_ladder_diagram, 7970), (sym_fb_diagram, 7970),
     (aux_sym_ERR_fb_variables_after_method_repeat1, 2343), (aux_sym_func_decl_repeat1, 7194),
     (aux_sym_fb_decl_repeat3, 2549), (aux_sym_SFC_repeat1, 7612),
     (aux_sym_stmt_list_repeat1, 2024), (aux_sym_ladder_diagram_repeat1, 8009),
     (aux_sym_fb_diagram_repeat1, 8013), (sym_identifier, 298),
     (aux_sym_ERR_unexpected_this_in_path_token1, 304),
     (aux_sym_ERR_unexpected_super_in_path_token1, 306), (sym_line_comment, 3),
     (anon_sym_LBRACE, 308), (aux_sym_test_pragma_token1, 9), (aux_sym_once_pragma_token1, 11),
     (aux_sym_must_call_pragma_token1, 13), (aux_sym_export_pragma_token1, 15),
     (anon_sym_SEMI, 310), (anon_sym_PERCENT, 312), (aux_sym_input_decls_token1, 314),
     (aux_sym_output_decls_token1, 316), (aux_sym_in_out_decls_token1, 318),
     (aux_sym_var_decls_token1, 320), (aux_sym_temp_var_decls_token1, 322),
     (aux_sym_external_var_decls_token1, 324), (aux_sym_global_var_decls_token1, 326),
     (aux_sym_fb_decl_token4, 1626), (aux_sym_method_decl_token1, 330),
     (aux_sym_prog_access_decls_token1, 332), (aux_sym_initial_step_token1, 334),
     (aux_sym_config_init_token1, 336), (aux_sym__stmt_token1, 340), (aux_sym__stmt_token2, 340),
     (aux_sym__stmt_token3, 340), (aux_sym_if_stmt_token1, 342), (aux_sym_case_stmt_token1, 344),
     (aux_sym_for_stmt_token1, 346), (aux_sym_while_stmt_token1, 348),
     (aux_sym_repeat_stmt_token1, 350), (aux_sym_raise_stmt_token1, 352),
     (aux_sym_try_stmt_token1, 354), (aux_sym_try_stmt_token2, 356),
     (aux_sym_catch_clause_token1, 356), (aux_sym_finally_clause_token1, 356), (sym_ld_rung, 358),
     (sym_fbd_network, 360), (sym_c_style_comment, 3), (sym_pascal_style_comment, 3),
     (sym_pragma, 3)]"

lemma ts_parse_row_648_scan: "row_scan tokens_63_2 0 ts_parse_row_648 = Some (Suc (Suc (Suc (Suc 0))))"
  unfolding ts_parse_row_648_def by simp

text \<open>Lines 128546 to 128658.\<close>

definition ts_parse_row_649 :: parse_row where
  "ts_parse_row_649 =
    [(sym_ERR_assign_func_call, 7530), (sym_ERR_unexpected_this_in_path, 2372),
     (sym_ERR_unexpected_super_in_path, 2372), (sym_ERR_fb_variables_after_method, 1599),
     (sym_ERR_var_access_not_allowed, 3160), (sym_ERR_var_config_not_allowed, 3160),
     (sym_ERR_var_global_not_allowed, 3160), (sym_ERR_method_decl_in_body, 3150),
     (sym_extern_pragma, 7490), (sym_wasm_pragma, 3150), (sym_warn_pragma, 7490),
     (sym_allow_pragma, 3140), (sym_test_pragma, 7490), (sym_once_pragma, 7490),
     (sym_must_call_pragma, 7490), (sym_export_pragma, 7490), (sym_pou_pragma, 7194),
     (sym_direct_variable, 7675), (sym_deref_expression, 2373), (sym_variable, 7599),
     (sym_var_access, 2373), (sym_in_out_decls, 3160), (sym_var_decls, 3160),
     (sym_retain_var_decls, 3160), (sym_temp_var_decls, 3160), (sym_external_var_decls, 3160),
     (sym_global_var_decls, 2947), (sym_loc_partly_var_decl, 3160), (sym__fb_variables, 2343),
     (sym_fb_input_decls, 3160), (sym_fb_output_decls, 3160), (sym_no_retain_var_decls, 3160),
     (sym_fb_body, 9593), (sym_method_decl, 2549), (sym_prog_access_decls, 3043), (sym_SFC, 7970),
     (sym_SFC_network, 7612), (sym_initial_step, 7439), (sym_config_init, 3047),
     (sym_variable_access, 7530), (sym_func_call, 2961), (sym_stmt_list, 7970), (sym__stmt, 2024),
     (sym_assign, 3150), (sym_if_stmt, 3150), (sym_case_stmt, 3150), (sym_for_stmt, 3150),
     (sym_while_stmt, 3150), (sym_repeat_stmt, 3150), (sym_raise_stmt, 3150), (sym_try_stmt, 3150),
     (sym_ERR_clause_outside_try, 3150), (sym_begin_path_expression, 2943), (sym_invocation, 2934),
     (sym_any_invocation, 2935), (sym_this_invocation, 2641), (sym_super_invocation, 2641),
     (sym_super_body_invocation, 2935), (sym_path_expression, 2627), (sym_field_expression, 2373),
     (sym_index_expression, 2373), (sym_ladder_diagram, 7970), (sym_fb_diagram, 7970),
     (aux_sym_ERR_fb_variables_after_method_repeat1, 2343), (aux_sym_func_decl_repeat1, 7194),
     (aux_sym_fb_decl_repeat3, 2549), (aux_sym_SFC_repeat1, 7612),
     (aux_sym_stmt_list_repeat1, 2024), (aux_sym_ladder_diagram_repeat1, 8009),
     (aux_sym_fb_diagram_repeat1, 8013), (sym_identifier, 298),
     (aux_sym_ERR_unexpected_this_in_path_token1, 304),
     (aux_sym_ERR_unexpected_super_in_path_token1, 306), (sym_line_comment, 3),
     (anon_sym_LBRACE, 308), (aux_sym_test_pragma_token1, 9), (aux_sym_once_pragma_token1, 11),
     (aux_sym_must_call_pragma_token1, 13), (aux_sym_export_pragma_token1, 15),
     (anon_sym_SEMI, 310), (anon_sym_PERCENT, 312), (aux_sym_input_decls_token1, 314),
     (aux_sym_output_decls_token1, 316), (aux_sym_in_out_decls_token1, 318),
     (aux_sym_var_decls_token1, 320), (aux_sym_temp_var_decls_token1, 322),
     (aux_sym_external_var_decls_token1, 324), (aux_sym_global_var_decls_token1, 326),
     (aux_sym_fb_decl_token4, 1628), (aux_sym_method_decl_token1, 330),
     (aux_sym_prog_access_decls_token1, 332), (aux_sym_initial_step_token1, 334),
     (aux_sym_config_init_token1, 336), (aux_sym__stmt_token1, 340), (aux_sym__stmt_token2, 340),
     (aux_sym__stmt_token3, 340), (aux_sym_if_stmt_token1, 342), (aux_sym_case_stmt_token1, 344),
     (aux_sym_for_stmt_token1, 346), (aux_sym_while_stmt_token1, 348),
     (aux_sym_repeat_stmt_token1, 350), (aux_sym_raise_stmt_token1, 352),
     (aux_sym_try_stmt_token1, 354), (aux_sym_try_stmt_token2, 356),
     (aux_sym_catch_clause_token1, 356), (aux_sym_finally_clause_token1, 356), (sym_ld_rung, 358),
     (sym_fbd_network, 360), (sym_c_style_comment, 3), (sym_pascal_style_comment, 3),
     (sym_pragma, 3)]"

lemma ts_parse_row_649_scan: "row_scan tokens_63_2 0 ts_parse_row_649 = Some (Suc (Suc (Suc (Suc 0))))"
  unfolding ts_parse_row_649_def by simp

text \<open>Lines 128659 to 128771.\<close>

definition ts_parse_row_650 :: parse_row where
  "ts_parse_row_650 =
    [(sym_ERR_assign_func_call, 7530), (sym_ERR_unexpected_this_in_path, 2372),
     (sym_ERR_unexpected_super_in_path, 2372), (sym_ERR_fb_variables_after_method, 1600),
     (sym_ERR_var_access_not_allowed, 3160), (sym_ERR_var_config_not_allowed, 3160),
     (sym_ERR_var_global_not_allowed, 3160), (sym_ERR_method_decl_in_body, 3150),
     (sym_extern_pragma, 7490), (sym_wasm_pragma, 3150), (sym_warn_pragma, 7490),
     (sym_allow_pragma, 3140), (sym_test_pragma, 7490), (sym_once_pragma, 7490),
     (sym_must_call_pragma, 7490), (sym_export_pragma, 7490), (sym_pou_pragma, 7194),
     (sym_direct_variable, 7675), (sym_deref_expression, 2373), (sym_variable, 7599),
     (sym_var_access, 2373), (sym_in_out_decls, 3160), (sym_var_decls, 3160),
     (sym_retain_var_decls, 3160), (sym_temp_var_decls, 3160), (sym_external_var_decls, 3160),
     (sym_global_var_decls, 2947), (sym_loc_partly_var_decl, 3160), (sym__fb_variables, 2343),
     (sym_fb_input_decls, 3160), (sym_fb_output_decls, 3160), (sym_no_retain_var_decls, 3160),
     (sym_fb_body, 9609), (sym_method_decl, 2549), (sym_prog_access_decls, 3043), (sym_SFC, 7970),
     (sym_SFC_network, 7612), (sym_initial_step, 7439), (sym_config_init, 3047),
     (sym_variable_access, 7530), (sym_func_call, 2961), (sym_stmt_list, 7970), (sym__stmt, 2024),
     (sym_assign, 3150), (sym_if_stmt, 3150), (sym_case_stmt, 3150), (sym_for_stmt, 3150),
     (sym_while_stmt, 3150), (sym_repeat_stmt, 3150), (sym_raise_stmt, 3150), (sym_try_stmt, 3150),
     (sym_ERR_clause_outside_try, 3150), (sym_begin_path_expression, 2943), (sym_invocation, 2934),
     (sym_any_invocation, 2935), (sym_this_invocation, 2641), (sym_super_invocation, 2641),
     (sym_super_body_invocation, 2935), (sym_path_expression, 2627), (sym_field_expression, 2373),
     (sym_index_expression, 2373), (sym_ladder_diagram, 7970), (sym_fb_diagram, 7970),
     (aux_sym_ERR_fb_variables_after_method_repeat1, 2343), (aux_sym_func_decl_repeat1, 7194),
     (aux_sym_fb_decl_repeat3, 2549), (aux_sym_SFC_repeat1, 7612),
     (aux_sym_stmt_list_repeat1, 2024), (aux_sym_ladder_diagram_repeat1, 8009),
     (aux_sym_fb_diagram_repeat1, 8013), (sym_identifier, 298),
     (aux_sym_ERR_unexpected_this_in_path_token1, 304),
     (aux_sym_ERR_unexpected_super_in_path_token1, 306), (sym_line_comment, 3),
     (anon_sym_LBRACE, 308), (aux_sym_test_pragma_token1, 9), (aux_sym_once_pragma_token1, 11),
     (aux_sym_must_call_pragma_token1, 13), (aux_sym_export_pragma_token1, 15),
     (anon_sym_SEMI, 310), (anon_sym_PERCENT, 312), (aux_sym_input_decls_token1, 314),
     (aux_sym_output_decls_token1, 316), (aux_sym_in_out_decls_token1, 318),
     (aux_sym_var_decls_token1, 320), (aux_sym_temp_var_decls_token1, 322),
     (aux_sym_external_var_decls_token1, 324), (aux_sym_global_var_decls_token1, 326),
     (aux_sym_fb_decl_token4, 1630), (aux_sym_method_decl_token1, 330),
     (aux_sym_prog_access_decls_token1, 332), (aux_sym_initial_step_token1, 334),
     (aux_sym_config_init_token1, 336), (aux_sym__stmt_token1, 340), (aux_sym__stmt_token2, 340),
     (aux_sym__stmt_token3, 340), (aux_sym_if_stmt_token1, 342), (aux_sym_case_stmt_token1, 344),
     (aux_sym_for_stmt_token1, 346), (aux_sym_while_stmt_token1, 348),
     (aux_sym_repeat_stmt_token1, 350), (aux_sym_raise_stmt_token1, 352),
     (aux_sym_try_stmt_token1, 354), (aux_sym_try_stmt_token2, 356),
     (aux_sym_catch_clause_token1, 356), (aux_sym_finally_clause_token1, 356), (sym_ld_rung, 358),
     (sym_fbd_network, 360), (sym_c_style_comment, 3), (sym_pascal_style_comment, 3),
     (sym_pragma, 3)]"

lemma ts_parse_row_650_scan: "row_scan tokens_63_2 0 ts_parse_row_650 = Some (Suc (Suc (Suc (Suc 0))))"
  unfolding ts_parse_row_650_def by simp

text \<open>Lines 128772 to 128884.\<close>

definition ts_parse_row_651 :: parse_row where
  "ts_parse_row_651 =
    [(sym_ERR_assign_func_call, 7530), (sym_ERR_unexpected_this_in_path, 2372),
     (sym_ERR_unexpected_super_in_path, 2372), (sym_ERR_fb_variables_after_method, 1601),
     (sym_ERR_var_access_not_allowed, 3160), (sym_ERR_var_config_not_allowed, 3160),
     (sym_ERR_var_global_not_allowed, 3160), (sym_ERR_method_decl_in_body, 3150),
     (sym_extern_pragma, 7490), (sym_wasm_pragma, 3150), (sym_warn_pragma, 7490),
     (sym_allow_pragma, 3140), (sym_test_pragma, 7490), (sym_once_pragma, 7490),
     (sym_must_call_pragma, 7490), (sym_export_pragma, 7490), (sym_pou_pragma, 7194),
     (sym_direct_variable, 7675), (sym_deref_expression, 2373), (sym_variable, 7599),
     (sym_var_access, 2373), (sym_in_out_decls, 3160), (sym_var_decls, 3160),
     (sym_retain_var_decls, 3160), (sym_temp_var_decls, 3160), (sym_external_var_decls, 3160),
     (sym_global_var_decls, 2947), (sym_loc_partly_var_decl, 3160), (sym__fb_variables, 2347),
     (sym_fb_input_decls, 3160), (sym_fb_output_decls, 3160), (sym_no_retain_var_decls, 3160),
     (sym_fb_body, 9615), (sym_method_decl, 755), (sym_prog_access_decls, 3043), (sym_SFC, 7970),
     (sym_SFC_network, 7612), (sym_initial_step, 7439), (sym_config_init, 3047),
     (sym_variable_access, 7530), (sym_func_call, 2961), (sym_stmt_list, 7970), (sym__stmt, 2024),
     (sym_assign, 3150), (sym_if_stmt, 3150), (sym_case_stmt, 3150), (sym_for_stmt, 3150),
     (sym_while_stmt, 3150), (sym_repeat_stmt, 3150), (sym_raise_stmt, 3150), (sym_try_stmt, 3150),
     (sym_ERR_clause_outside_try, 3150), (sym_begin_path_expression, 2943), (sym_invocation, 2934),
     (sym_any_invocation, 2935), (sym_this_invocation, 2641), (sym_super_invocation, 2641),
     (sym_super_body_invocation, 2935), (sym_path_expression, 2627), (sym_field_expression, 2373),
     (sym_index_expression, 2373), (sym_ladder_diagram, 7970), (sym_fb_diagram, 7970),
     (aux_sym_ERR_fb_variables_after_method_repeat1, 2347), (aux_sym_func_decl_repeat1, 7194),
     (aux_sym_fb_decl_repeat3, 755), (aux_sym_SFC_repeat1, 7612), (aux_sym_stmt_list_repeat1, 2024),
     (aux_sym_ladder_diagram_repeat1, 8009), (aux_sym_fb_diagram_repeat1, 8013),
     (sym_identifier, 298), (aux_sym_ERR_unexpected_this_in_path_token1, 304),
     (aux_sym_ERR_unexpected_super_in_path_token1, 306), (sym_line_comment, 3),
     (anon_sym_LBRACE, 308), (aux_sym_test_pragma_token1, 9), (aux_sym_once_pragma_token1, 11),
     (aux_sym_must_call_pragma_token1, 13), (aux_sym_export_pragma_token1, 15),
     (anon_sym_SEMI, 310), (anon_sym_PERCENT, 312), (aux_sym_input_decls_token1, 314),
     (aux_sym_output_decls_token1, 316), (aux_sym_in_out_decls_token1, 318),
     (aux_sym_var_decls_token1, 320), (aux_sym_temp_var_decls_token1, 322),
     (aux_sym_external_var_decls_token1, 324), (aux_sym_global_var_decls_token1, 326),
     (aux_sym_fb_decl_token4, 1632), (aux_sym_method_decl_token1, 330),
     (aux_sym_prog_access_decls_token1, 332), (aux_sym_initial_step_token1, 334),
     (aux_sym_config_init_token1, 336), (aux_sym__stmt_token1, 340), (aux_sym__stmt_token2, 340),
     (aux_sym__stmt_token3, 340), (aux_sym_if_stmt_token1, 342), (aux_sym_case_stmt_token1, 344),
     (aux_sym_for_stmt_token1, 346), (aux_sym_while_stmt_token1, 348),
     (aux_sym_repeat_stmt_token1, 350), (aux_sym_raise_stmt_token1, 352),
     (aux_sym_try_stmt_token1, 354), (aux_sym_try_stmt_token2, 356),
     (aux_sym_catch_clause_token1, 356), (aux_sym_finally_clause_token1, 356), (sym_ld_rung, 358),
     (sym_fbd_network, 360), (sym_c_style_comment, 3), (sym_pascal_style_comment, 3),
     (sym_pragma, 3)]"

lemma ts_parse_row_651_scan: "row_scan tokens_63_2 0 ts_parse_row_651 = Some (Suc (Suc (Suc (Suc 0))))"
  unfolding ts_parse_row_651_def by simp

text \<open>Lines 128885 to 128997.\<close>

definition ts_parse_row_652 :: parse_row where
  "ts_parse_row_652 =
    [(sym_ERR_assign_func_call, 7530), (sym_ERR_unexpected_this_in_path, 2372),
     (sym_ERR_unexpected_super_in_path, 2372), (sym_ERR_fb_variables_after_method, 1603),
     (sym_ERR_var_access_not_allowed, 3160), (sym_ERR_var_config_not_allowed, 3160),
     (sym_ERR_var_global_not_allowed, 3160), (sym_ERR_method_decl_in_body, 3150),
     (sym_extern_pragma, 7490), (sym_wasm_pragma, 3150), (sym_warn_pragma, 7490),
     (sym_allow_pragma, 3140), (sym_test_pragma, 7490), (sym_once_pragma, 7490),
     (sym_must_call_pragma, 7490), (sym_export_pragma, 7490), (sym_pou_pragma, 7194),
     (sym_direct_variable, 7675), (sym_deref_expression, 2373), (sym_variable, 7599),
     (sym_var_access, 2373), (sym_in_out_decls, 3160), (sym_var_decls, 3160),
     (sym_retain_var_decls, 3160), (sym_temp_var_decls, 3160), (sym_external_var_decls, 3160),
     (sym_global_var_decls, 2947), (sym_loc_partly_var_decl, 3160), (sym__fb_variables, 2343),
     (sym_fb_input_decls, 3160), (sym_fb_output_decls, 3160), (sym_no_retain_var_decls, 3160),
     (sym_fb_body, 9619), (sym_method_decl, 2549), (sym_prog_access_decls, 3043), (sym_SFC, 7970),
     (sym_SFC_network, 7612), (sym_initial_step, 7439), (sym_config_init, 3047),
     (sym_variable_access, 7530), (sym_func_call, 2961), (sym_stmt_list, 7970), (sym__stmt, 2024),
     (sym_assign, 3150), (sym_if_stmt, 3150), (sym_case_stmt, 3150), (sym_for_stmt, 3150),
     (sym_while_stmt, 3150), (sym_repeat_stmt, 3150), (sym_raise_stmt, 3150), (sym_try_stmt, 3150),
     (sym_ERR_clause_outside_try, 3150), (sym_begin_path_expression, 2943), (sym_invocation, 2934),
     (sym_any_invocation, 2935), (sym_this_invocation, 2641), (sym_super_invocation, 2641),
     (sym_super_body_invocation, 2935), (sym_path_expression, 2627), (sym_field_expression, 2373),
     (sym_index_expression, 2373), (sym_ladder_diagram, 7970), (sym_fb_diagram, 7970),
     (aux_sym_ERR_fb_variables_after_method_repeat1, 2343), (aux_sym_func_decl_repeat1, 7194),
     (aux_sym_fb_decl_repeat3, 2549), (aux_sym_SFC_repeat1, 7612),
     (aux_sym_stmt_list_repeat1, 2024), (aux_sym_ladder_diagram_repeat1, 8009),
     (aux_sym_fb_diagram_repeat1, 8013), (sym_identifier, 298),
     (aux_sym_ERR_unexpected_this_in_path_token1, 304),
     (aux_sym_ERR_unexpected_super_in_path_token1, 306), (sym_line_comment, 3),
     (anon_sym_LBRACE, 308), (aux_sym_test_pragma_token1, 9), (aux_sym_once_pragma_token1, 11),
     (aux_sym_must_call_pragma_token1, 13), (aux_sym_export_pragma_token1, 15),
     (anon_sym_SEMI, 310), (anon_sym_PERCENT, 312), (aux_sym_input_decls_token1, 314),
     (aux_sym_output_decls_token1, 316), (aux_sym_in_out_decls_token1, 318),
     (aux_sym_var_decls_token1, 320), (aux_sym_temp_var_decls_token1, 322),
     (aux_sym_external_var_decls_token1, 324), (aux_sym_global_var_decls_token1, 326),
     (aux_sym_fb_decl_token4, 1634), (aux_sym_method_decl_token1, 330),
     (aux_sym_prog_access_decls_token1, 332), (aux_sym_initial_step_token1, 334),
     (aux_sym_config_init_token1, 336), (aux_sym__stmt_token1, 340), (aux_sym__stmt_token2, 340),
     (aux_sym__stmt_token3, 340), (aux_sym_if_stmt_token1, 342), (aux_sym_case_stmt_token1, 344),
     (aux_sym_for_stmt_token1, 346), (aux_sym_while_stmt_token1, 348),
     (aux_sym_repeat_stmt_token1, 350), (aux_sym_raise_stmt_token1, 352),
     (aux_sym_try_stmt_token1, 354), (aux_sym_try_stmt_token2, 356),
     (aux_sym_catch_clause_token1, 356), (aux_sym_finally_clause_token1, 356), (sym_ld_rung, 358),
     (sym_fbd_network, 360), (sym_c_style_comment, 3), (sym_pascal_style_comment, 3),
     (sym_pragma, 3)]"

lemma ts_parse_row_652_scan: "row_scan tokens_63_2 0 ts_parse_row_652 = Some (Suc (Suc (Suc (Suc 0))))"
  unfolding ts_parse_row_652_def by simp

text \<open>Lines 128998 to 129110.\<close>

definition ts_parse_row_653 :: parse_row where
  "ts_parse_row_653 =
    [(sym_ERR_assign_func_call, 7530), (sym_ERR_unexpected_this_in_path, 2372),
     (sym_ERR_unexpected_super_in_path, 2372), (sym_ERR_fb_variables_after_method, 1604),
     (sym_ERR_var_access_not_allowed, 3160), (sym_ERR_var_config_not_allowed, 3160),
     (sym_ERR_var_global_not_allowed, 3160), (sym_ERR_method_decl_in_body, 3150),
     (sym_extern_pragma, 7490), (sym_wasm_pragma, 3150), (sym_warn_pragma, 7490),
     (sym_allow_pragma, 3140), (sym_test_pragma, 7490), (sym_once_pragma, 7490),
     (sym_must_call_pragma, 7490), (sym_export_pragma, 7490), (sym_pou_pragma, 7194),
     (sym_direct_variable, 7675), (sym_deref_expression, 2373), (sym_variable, 7599),
     (sym_var_access, 2373), (sym_in_out_decls, 3160), (sym_var_decls, 3160),
     (sym_retain_var_decls, 3160), (sym_temp_var_decls, 3160), (sym_external_var_decls, 3160),
     (sym_global_var_decls, 2947), (sym_loc_partly_var_decl, 3160), (sym__fb_variables, 2343),
     (sym_fb_input_decls, 3160), (sym_fb_output_decls, 3160), (sym_no_retain_var_decls, 3160),
     (sym_fb_body, 9651), (sym_method_decl, 2549), (sym_prog_access_decls, 3043), (sym_SFC, 7970),
     (sym_SFC_network, 7612), (sym_initial_step, 7439), (sym_config_init, 3047),
     (sym_variable_access, 7530), (sym_func_call, 2961), (sym_stmt_list, 7970), (sym__stmt, 2024),
     (sym_assign, 3150), (sym_if_stmt, 3150), (sym_case_stmt, 3150), (sym_for_stmt, 3150),
     (sym_while_stmt, 3150), (sym_repeat_stmt, 3150), (sym_raise_stmt, 3150), (sym_try_stmt, 3150),
     (sym_ERR_clause_outside_try, 3150), (sym_begin_path_expression, 2943), (sym_invocation, 2934),
     (sym_any_invocation, 2935), (sym_this_invocation, 2641), (sym_super_invocation, 2641),
     (sym_super_body_invocation, 2935), (sym_path_expression, 2627), (sym_field_expression, 2373),
     (sym_index_expression, 2373), (sym_ladder_diagram, 7970), (sym_fb_diagram, 7970),
     (aux_sym_ERR_fb_variables_after_method_repeat1, 2343), (aux_sym_func_decl_repeat1, 7194),
     (aux_sym_fb_decl_repeat3, 2549), (aux_sym_SFC_repeat1, 7612),
     (aux_sym_stmt_list_repeat1, 2024), (aux_sym_ladder_diagram_repeat1, 8009),
     (aux_sym_fb_diagram_repeat1, 8013), (sym_identifier, 298),
     (aux_sym_ERR_unexpected_this_in_path_token1, 304),
     (aux_sym_ERR_unexpected_super_in_path_token1, 306), (sym_line_comment, 3),
     (anon_sym_LBRACE, 308), (aux_sym_test_pragma_token1, 9), (aux_sym_once_pragma_token1, 11),
     (aux_sym_must_call_pragma_token1, 13), (aux_sym_export_pragma_token1, 15),
     (anon_sym_SEMI, 310), (anon_sym_PERCENT, 312), (aux_sym_input_decls_token1, 314),
     (aux_sym_output_decls_token1, 316), (aux_sym_in_out_decls_token1, 318),
     (aux_sym_var_decls_token1, 320), (aux_sym_temp_var_decls_token1, 322),
     (aux_sym_external_var_decls_token1, 324), (aux_sym_global_var_decls_token1, 326),
     (aux_sym_fb_decl_token4, 1636), (aux_sym_method_decl_token1, 330),
     (aux_sym_prog_access_decls_token1, 332), (aux_sym_initial_step_token1, 334),
     (aux_sym_config_init_token1, 336), (aux_sym__stmt_token1, 340), (aux_sym__stmt_token2, 340),
     (aux_sym__stmt_token3, 340), (aux_sym_if_stmt_token1, 342), (aux_sym_case_stmt_token1, 344),
     (aux_sym_for_stmt_token1, 346), (aux_sym_while_stmt_token1, 348),
     (aux_sym_repeat_stmt_token1, 350), (aux_sym_raise_stmt_token1, 352),
     (aux_sym_try_stmt_token1, 354), (aux_sym_try_stmt_token2, 356),
     (aux_sym_catch_clause_token1, 356), (aux_sym_finally_clause_token1, 356), (sym_ld_rung, 358),
     (sym_fbd_network, 360), (sym_c_style_comment, 3), (sym_pascal_style_comment, 3),
     (sym_pragma, 3)]"

lemma ts_parse_row_653_scan: "row_scan tokens_63_2 0 ts_parse_row_653 = Some (Suc (Suc (Suc (Suc 0))))"
  unfolding ts_parse_row_653_def by simp

text \<open>Lines 129111 to 129223.\<close>

definition ts_parse_row_654 :: parse_row where
  "ts_parse_row_654 =
    [(sym_ERR_assign_func_call, 7530), (sym_ERR_unexpected_this_in_path, 2372),
     (sym_ERR_unexpected_super_in_path, 2372), (sym_ERR_fb_variables_after_method, 1605),
     (sym_ERR_var_access_not_allowed, 3160), (sym_ERR_var_config_not_allowed, 3160),
     (sym_ERR_var_global_not_allowed, 3160), (sym_ERR_method_decl_in_body, 3150),
     (sym_extern_pragma, 7490), (sym_wasm_pragma, 3150), (sym_warn_pragma, 7490),
     (sym_allow_pragma, 3140), (sym_test_pragma, 7490), (sym_once_pragma, 7490),
     (sym_must_call_pragma, 7490), (sym_export_pragma, 7490), (sym_pou_pragma, 7194),
     (sym_direct_variable, 7675), (sym_deref_expression, 2373), (sym_variable, 7599),
     (sym_var_access, 2373), (sym_in_out_decls, 3160), (sym_var_decls, 3160),
     (sym_retain_var_decls, 3160), (sym_temp_var_decls, 3160), (sym_external_var_decls, 3160),
     (sym_global_var_decls, 2947), (sym_loc_partly_var_decl, 3160), (sym__fb_variables, 2343),
     (sym_fb_input_decls, 3160), (sym_fb_output_decls, 3160), (sym_no_retain_var_decls, 3160),
     (sym_fb_body, 9666), (sym_method_decl, 2549), (sym_prog_access_decls, 3043), (sym_SFC, 7970),
     (sym_SFC_network, 7612), (sym_initial_step, 7439), (sym_config_init, 3047),
     (sym_variable_access, 7530), (sym_func_call, 2961), (sym_stmt_list, 7970), (sym__stmt, 2024),
     (sym_assign, 3150), (sym_if_stmt, 3150), (sym_case_stmt, 3150), (sym_for_stmt, 3150),
     (sym_while_stmt, 3150), (sym_repeat_stmt, 3150), (sym_raise_stmt, 3150), (sym_try_stmt, 3150),
     (sym_ERR_clause_outside_try, 3150), (sym_begin_path_expression, 2943), (sym_invocation, 2934),
     (sym_any_invocation, 2935), (sym_this_invocation, 2641), (sym_super_invocation, 2641),
     (sym_super_body_invocation, 2935), (sym_path_expression, 2627), (sym_field_expression, 2373),
     (sym_index_expression, 2373), (sym_ladder_diagram, 7970), (sym_fb_diagram, 7970),
     (aux_sym_ERR_fb_variables_after_method_repeat1, 2343), (aux_sym_func_decl_repeat1, 7194),
     (aux_sym_fb_decl_repeat3, 2549), (aux_sym_SFC_repeat1, 7612),
     (aux_sym_stmt_list_repeat1, 2024), (aux_sym_ladder_diagram_repeat1, 8009),
     (aux_sym_fb_diagram_repeat1, 8013), (sym_identifier, 298),
     (aux_sym_ERR_unexpected_this_in_path_token1, 304),
     (aux_sym_ERR_unexpected_super_in_path_token1, 306), (sym_line_comment, 3),
     (anon_sym_LBRACE, 308), (aux_sym_test_pragma_token1, 9), (aux_sym_once_pragma_token1, 11),
     (aux_sym_must_call_pragma_token1, 13), (aux_sym_export_pragma_token1, 15),
     (anon_sym_SEMI, 310), (anon_sym_PERCENT, 312), (aux_sym_input_decls_token1, 314),
     (aux_sym_output_decls_token1, 316), (aux_sym_in_out_decls_token1, 318),
     (aux_sym_var_decls_token1, 320), (aux_sym_temp_var_decls_token1, 322),
     (aux_sym_external_var_decls_token1, 324), (aux_sym_global_var_decls_token1, 326),
     (aux_sym_fb_decl_token4, 1638), (aux_sym_method_decl_token1, 330),
     (aux_sym_prog_access_decls_token1, 332), (aux_sym_initial_step_token1, 334),
     (aux_sym_config_init_token1, 336), (aux_sym__stmt_token1, 340), (aux_sym__stmt_token2, 340),
     (aux_sym__stmt_token3, 340), (aux_sym_if_stmt_token1, 342), (aux_sym_case_stmt_token1, 344),
     (aux_sym_for_stmt_token1, 346), (aux_sym_while_stmt_token1, 348),
     (aux_sym_repeat_stmt_token1, 350), (aux_sym_raise_stmt_token1, 352),
     (aux_sym_try_stmt_token1, 354), (aux_sym_try_stmt_token2, 356),
     (aux_sym_catch_clause_token1, 356), (aux_sym_finally_clause_token1, 356), (sym_ld_rung, 358),
     (sym_fbd_network, 360), (sym_c_style_comment, 3), (sym_pascal_style_comment, 3),
     (sym_pragma, 3)]"

lemma ts_parse_row_654_scan: "row_scan tokens_63_2 0 ts_parse_row_654 = Some (Suc (Suc (Suc (Suc 0))))"
  unfolding ts_parse_row_654_def by simp

text \<open>Lines 129224 to 129336.\<close>

definition ts_parse_row_655 :: parse_row where
  "ts_parse_row_655 =
    [(sym_ERR_assign_func_call, 7530), (sym_ERR_unexpected_this_in_path, 2372),
     (sym_ERR_unexpected_super_in_path, 2372), (sym_ERR_fb_variables_after_method, 1606),
     (sym_ERR_var_access_not_allowed, 3160), (sym_ERR_var_config_not_allowed, 3160),
     (sym_ERR_var_global_not_allowed, 3160), (sym_ERR_method_decl_in_body, 3150),
     (sym_extern_pragma, 7490), (sym_wasm_pragma, 3150), (sym_warn_pragma, 7490),
     (sym_allow_pragma, 3140), (sym_test_pragma, 7490), (sym_once_pragma, 7490),
     (sym_must_call_pragma, 7490), (sym_export_pragma, 7490), (sym_pou_pragma, 7194),
     (sym_direct_variable, 7675), (sym_deref_expression, 2373), (sym_variable, 7599),
     (sym_var_access, 2373), (sym_in_out_decls, 3160), (sym_var_decls, 3160),
     (sym_retain_var_decls, 3160), (sym_temp_var_decls, 3160), (sym_external_var_decls, 3160),
     (sym_global_var_decls, 2947), (sym_loc_partly_var_decl, 3160), (sym__fb_variables, 2343),
     (sym_fb_input_decls, 3160), (sym_fb_output_decls, 3160), (sym_no_retain_var_decls, 3160),
     (sym_fb_body, 9676), (sym_method_decl, 2549), (sym_prog_access_decls, 3043), (sym_SFC, 7970),
     (sym_SFC_network, 7612), (sym_initial_step, 7439), (sym_config_init, 3047),
     (sym_variable_access, 7530), (sym_func_call, 2961), (sym_stmt_list, 7970), (sym__stmt, 2024),
     (sym_assign, 3150), (sym_if_stmt, 3150), (sym_case_stmt, 3150), (sym_for_stmt, 3150),
     (sym_while_stmt, 3150), (sym_repeat_stmt, 3150), (sym_raise_stmt, 3150), (sym_try_stmt, 3150),
     (sym_ERR_clause_outside_try, 3150), (sym_begin_path_expression, 2943), (sym_invocation, 2934),
     (sym_any_invocation, 2935), (sym_this_invocation, 2641), (sym_super_invocation, 2641),
     (sym_super_body_invocation, 2935), (sym_path_expression, 2627), (sym_field_expression, 2373),
     (sym_index_expression, 2373), (sym_ladder_diagram, 7970), (sym_fb_diagram, 7970),
     (aux_sym_ERR_fb_variables_after_method_repeat1, 2343), (aux_sym_func_decl_repeat1, 7194),
     (aux_sym_fb_decl_repeat3, 2549), (aux_sym_SFC_repeat1, 7612),
     (aux_sym_stmt_list_repeat1, 2024), (aux_sym_ladder_diagram_repeat1, 8009),
     (aux_sym_fb_diagram_repeat1, 8013), (sym_identifier, 298),
     (aux_sym_ERR_unexpected_this_in_path_token1, 304),
     (aux_sym_ERR_unexpected_super_in_path_token1, 306), (sym_line_comment, 3),
     (anon_sym_LBRACE, 308), (aux_sym_test_pragma_token1, 9), (aux_sym_once_pragma_token1, 11),
     (aux_sym_must_call_pragma_token1, 13), (aux_sym_export_pragma_token1, 15),
     (anon_sym_SEMI, 310), (anon_sym_PERCENT, 312), (aux_sym_input_decls_token1, 314),
     (aux_sym_output_decls_token1, 316), (aux_sym_in_out_decls_token1, 318),
     (aux_sym_var_decls_token1, 320), (aux_sym_temp_var_decls_token1, 322),
     (aux_sym_external_var_decls_token1, 324), (aux_sym_global_var_decls_token1, 326),
     (aux_sym_fb_decl_token4, 1640), (aux_sym_method_decl_token1, 330),
     (aux_sym_prog_access_decls_token1, 332), (aux_sym_initial_step_token1, 334),
     (aux_sym_config_init_token1, 336), (aux_sym__stmt_token1, 340), (aux_sym__stmt_token2, 340),
     (aux_sym__stmt_token3, 340), (aux_sym_if_stmt_token1, 342), (aux_sym_case_stmt_token1, 344),
     (aux_sym_for_stmt_token1, 346), (aux_sym_while_stmt_token1, 348),
     (aux_sym_repeat_stmt_token1, 350), (aux_sym_raise_stmt_token1, 352),
     (aux_sym_try_stmt_token1, 354), (aux_sym_try_stmt_token2, 356),
     (aux_sym_catch_clause_token1, 356), (aux_sym_finally_clause_token1, 356), (sym_ld_rung, 358),
     (sym_fbd_network, 360), (sym_c_style_comment, 3), (sym_pascal_style_comment, 3),
     (sym_pragma, 3)]"

lemma ts_parse_row_655_scan: "row_scan tokens_63_2 0 ts_parse_row_655 = Some (Suc (Suc (Suc (Suc 0))))"
  unfolding ts_parse_row_655_def by simp

text \<open>Lines 129337 to 129449.\<close>

definition ts_parse_row_656 :: parse_row where
  "ts_parse_row_656 =
    [(sym_ERR_assign_func_call, 7530), (sym_ERR_unexpected_this_in_path, 2372),
     (sym_ERR_unexpected_super_in_path, 2372), (sym_ERR_fb_variables_after_method, 1607),
     (sym_ERR_var_access_not_allowed, 3160), (sym_ERR_var_config_not_allowed, 3160),
     (sym_ERR_var_global_not_allowed, 3160), (sym_ERR_method_decl_in_body, 3150),
     (sym_extern_pragma, 7490), (sym_wasm_pragma, 3150), (sym_warn_pragma, 7490),
     (sym_allow_pragma, 3140), (sym_test_pragma, 7490), (sym_once_pragma, 7490),
     (sym_must_call_pragma, 7490), (sym_export_pragma, 7490), (sym_pou_pragma, 7194),
     (sym_direct_variable, 7675), (sym_deref_expression, 2373), (sym_variable, 7599),
     (sym_var_access, 2373), (sym_in_out_decls, 3160), (sym_var_decls, 3160),
     (sym_retain_var_decls, 3160), (sym_temp_var_decls, 3160), (sym_external_var_decls, 3160),
     (sym_global_var_decls, 2947), (sym_loc_partly_var_decl, 3160), (sym__fb_variables, 2347),
     (sym_fb_input_decls, 3160), (sym_fb_output_decls, 3160), (sym_no_retain_var_decls, 3160),
     (sym_fb_body, 9682), (sym_method_decl, 756), (sym_prog_access_decls, 3043), (sym_SFC, 7970),
     (sym_SFC_network, 7612), (sym_initial_step, 7439), (sym_config_init, 3047),
     (sym_variable_access, 7530), (sym_func_call, 2961), (sym_stmt_list, 7970), (sym__stmt, 2024),
     (sym_assign, 3150), (sym_if_stmt, 3150), (sym_case_stmt, 3150), (sym_for_stmt, 3150),
     (sym_while_stmt, 3150), (sym_repeat_stmt, 3150), (sym_raise_stmt, 3150), (sym_try_stmt, 3150),
     (sym_ERR_clause_outside_try, 3150), (sym_begin_path_expression, 2943), (sym_invocation, 2934),
     (sym_any_invocation, 2935), (sym_this_invocation, 2641), (sym_super_invocation, 2641),
     (sym_super_body_invocation, 2935), (sym_path_expression, 2627), (sym_field_expression, 2373),
     (sym_index_expression, 2373), (sym_ladder_diagram, 7970), (sym_fb_diagram, 7970),
     (aux_sym_ERR_fb_variables_after_method_repeat1, 2347), (aux_sym_func_decl_repeat1, 7194),
     (aux_sym_fb_decl_repeat3, 756), (aux_sym_SFC_repeat1, 7612), (aux_sym_stmt_list_repeat1, 2024),
     (aux_sym_ladder_diagram_repeat1, 8009), (aux_sym_fb_diagram_repeat1, 8013),
     (sym_identifier, 298), (aux_sym_ERR_unexpected_this_in_path_token1, 304),
     (aux_sym_ERR_unexpected_super_in_path_token1, 306), (sym_line_comment, 3),
     (anon_sym_LBRACE, 308), (aux_sym_test_pragma_token1, 9), (aux_sym_once_pragma_token1, 11),
     (aux_sym_must_call_pragma_token1, 13), (aux_sym_export_pragma_token1, 15),
     (anon_sym_SEMI, 310), (anon_sym_PERCENT, 312), (aux_sym_input_decls_token1, 314),
     (aux_sym_output_decls_token1, 316), (aux_sym_in_out_decls_token1, 318),
     (aux_sym_var_decls_token1, 320), (aux_sym_temp_var_decls_token1, 322),
     (aux_sym_external_var_decls_token1, 324), (aux_sym_global_var_decls_token1, 326),
     (aux_sym_fb_decl_token4, 1642), (aux_sym_method_decl_token1, 330),
     (aux_sym_prog_access_decls_token1, 332), (aux_sym_initial_step_token1, 334),
     (aux_sym_config_init_token1, 336), (aux_sym__stmt_token1, 340), (aux_sym__stmt_token2, 340),
     (aux_sym__stmt_token3, 340), (aux_sym_if_stmt_token1, 342), (aux_sym_case_stmt_token1, 344),
     (aux_sym_for_stmt_token1, 346), (aux_sym_while_stmt_token1, 348),
     (aux_sym_repeat_stmt_token1, 350), (aux_sym_raise_stmt_token1, 352),
     (aux_sym_try_stmt_token1, 354), (aux_sym_try_stmt_token2, 356),
     (aux_sym_catch_clause_token1, 356), (aux_sym_finally_clause_token1, 356), (sym_ld_rung, 358),
     (sym_fbd_network, 360), (sym_c_style_comment, 3), (sym_pascal_style_comment, 3),
     (sym_pragma, 3)]"

lemma ts_parse_row_656_scan: "row_scan tokens_63_2 0 ts_parse_row_656 = Some (Suc (Suc (Suc (Suc 0))))"
  unfolding ts_parse_row_656_def by simp

text \<open>Lines 129450 to 129562.\<close>

definition ts_parse_row_657 :: parse_row where
  "ts_parse_row_657 =
    [(sym_ERR_assign_func_call, 7530), (sym_ERR_unexpected_this_in_path, 2372),
     (sym_ERR_unexpected_super_in_path, 2372), (sym_ERR_fb_variables_after_method, 1608),
     (sym_ERR_var_access_not_allowed, 3160), (sym_ERR_var_config_not_allowed, 3160),
     (sym_ERR_var_global_not_allowed, 3160), (sym_ERR_method_decl_in_body, 3150),
     (sym_extern_pragma, 7490), (sym_wasm_pragma, 3150), (sym_warn_pragma, 7490),
     (sym_allow_pragma, 3140), (sym_test_pragma, 7490), (sym_once_pragma, 7490),
     (sym_must_call_pragma, 7490), (sym_export_pragma, 7490), (sym_pou_pragma, 7194),
     (sym_direct_variable, 7675), (sym_deref_expression, 2373), (sym_variable, 7599),
     (sym_var_access, 2373), (sym_in_out_decls, 3160), (sym_var_decls, 3160),
     (sym_retain_var_decls, 3160), (sym_temp_var_decls, 3160), (sym_external_var_decls, 3160),
     (sym_global_var_decls, 2947), (sym_loc_partly_var_decl, 3160), (sym__fb_variables, 2343),
     (sym_fb_input_decls, 3160), (sym_fb_output_decls, 3160), (sym_no_retain_var_decls, 3160),
     (sym_fb_body, 9686), (sym_method_decl, 2549), (sym_prog_access_decls, 3043), (sym_SFC, 7970),
     (sym_SFC_network, 7612), (sym_initial_step, 7439), (sym_config_init, 3047),
     (sym_variable_access, 7530), (sym_func_call, 2961), (sym_stmt_list, 7970), (sym__stmt, 2024),
     (sym_assign, 3150), (sym_if_stmt, 3150), (sym_case_stmt, 3150), (sym_for_stmt, 3150),
     (sym_while_stmt, 3150), (sym_repeat_stmt, 3150), (sym_raise_stmt, 3150), (sym_try_stmt, 3150),
     (sym_ERR_clause_outside_try, 3150), (sym_begin_path_expression, 2943), (sym_invocation, 2934),
     (sym_any_invocation, 2935), (sym_this_invocation, 2641), (sym_super_invocation, 2641),
     (sym_super_body_invocation, 2935), (sym_path_expression, 2627), (sym_field_expression, 2373),
     (sym_index_expression, 2373), (sym_ladder_diagram, 7970), (sym_fb_diagram, 7970),
     (aux_sym_ERR_fb_variables_after_method_repeat1, 2343), (aux_sym_func_decl_repeat1, 7194),
     (aux_sym_fb_decl_repeat3, 2549), (aux_sym_SFC_repeat1, 7612),
     (aux_sym_stmt_list_repeat1, 2024), (aux_sym_ladder_diagram_repeat1, 8009),
     (aux_sym_fb_diagram_repeat1, 8013), (sym_identifier, 298),
     (aux_sym_ERR_unexpected_this_in_path_token1, 304),
     (aux_sym_ERR_unexpected_super_in_path_token1, 306), (sym_line_comment, 3),
     (anon_sym_LBRACE, 308), (aux_sym_test_pragma_token1, 9), (aux_sym_once_pragma_token1, 11),
     (aux_sym_must_call_pragma_token1, 13), (aux_sym_export_pragma_token1, 15),
     (anon_sym_SEMI, 310), (anon_sym_PERCENT, 312), (aux_sym_input_decls_token1, 314),
     (aux_sym_output_decls_token1, 316), (aux_sym_in_out_decls_token1, 318),
     (aux_sym_var_decls_token1, 320), (aux_sym_temp_var_decls_token1, 322),
     (aux_sym_external_var_decls_token1, 324), (aux_sym_global_var_decls_token1, 326),
     (aux_sym_fb_decl_token4, 1644), (aux_sym_method_decl_token1, 330),
     (aux_sym_prog_access_decls_token1, 332), (aux_sym_initial_step_token1, 334),
     (aux_sym_config_init_token1, 336), (aux_sym__stmt_token1, 340), (aux_sym__stmt_token2, 340),
     (aux_sym__stmt_token3, 340), (aux_sym_if_stmt_token1, 342), (aux_sym_case_stmt_token1, 344),
     (aux_sym_for_stmt_token1, 346), (aux_sym_while_stmt_token1, 348),
     (aux_sym_repeat_stmt_token1, 350), (aux_sym_raise_stmt_token1, 352),
     (aux_sym_try_stmt_token1, 354), (aux_sym_try_stmt_token2, 356),
     (aux_sym_catch_clause_token1, 356), (aux_sym_finally_clause_token1, 356), (sym_ld_rung, 358),
     (sym_fbd_network, 360), (sym_c_style_comment, 3), (sym_pascal_style_comment, 3),
     (sym_pragma, 3)]"

lemma ts_parse_row_657_scan: "row_scan tokens_63_2 0 ts_parse_row_657 = Some (Suc (Suc (Suc (Suc 0))))"
  unfolding ts_parse_row_657_def by simp

text \<open>Lines 129563 to 129675.\<close>

definition ts_parse_row_658 :: parse_row where
  "ts_parse_row_658 =
    [(sym_ERR_assign_func_call, 7530), (sym_ERR_unexpected_this_in_path, 2372),
     (sym_ERR_unexpected_super_in_path, 2372), (sym_ERR_fb_variables_after_method, 1609),
     (sym_ERR_var_access_not_allowed, 3160), (sym_ERR_var_config_not_allowed, 3160),
     (sym_ERR_var_global_not_allowed, 3160), (sym_ERR_method_decl_in_body, 3150),
     (sym_extern_pragma, 7490), (sym_wasm_pragma, 3150), (sym_warn_pragma, 7490),
     (sym_allow_pragma, 3140), (sym_test_pragma, 7490), (sym_once_pragma, 7490),
     (sym_must_call_pragma, 7490), (sym_export_pragma, 7490), (sym_pou_pragma, 7194),
     (sym_direct_variable, 7675), (sym_deref_expression, 2373), (sym_variable, 7599),
     (sym_var_access, 2373), (sym_in_out_decls, 3160), (sym_var_decls, 3160),
     (sym_retain_var_decls, 3160), (sym_temp_var_decls, 3160), (sym_external_var_decls, 3160),
     (sym_global_var_decls, 2947), (sym_loc_partly_var_decl, 3160), (sym__fb_variables, 2343),
     (sym_fb_input_decls, 3160), (sym_fb_output_decls, 3160), (sym_no_retain_var_decls, 3160),
     (sym_fb_body, 9715), (sym_method_decl, 2549), (sym_prog_access_decls, 3043), (sym_SFC, 7970),
     (sym_SFC_network, 7612), (sym_initial_step, 7439), (sym_config_init, 3047),
     (sym_variable_access, 7530), (sym_func_call, 2961), (sym_stmt_list, 7970), (sym__stmt, 2024),
     (sym_assign, 3150), (sym_if_stmt, 3150), (sym_case_stmt, 3150), (sym_for_stmt, 3150),
     (sym_while_stmt, 3150), (sym_repeat_stmt, 3150), (sym_raise_stmt, 3150), (sym_try_stmt, 3150),
     (sym_ERR_clause_outside_try, 3150), (sym_begin_path_expression, 2943), (sym_invocation, 2934),
     (sym_any_invocation, 2935), (sym_this_invocation, 2641), (sym_super_invocation, 2641),
     (sym_super_body_invocation, 2935), (sym_path_expression, 2627), (sym_field_expression, 2373),
     (sym_index_expression, 2373), (sym_ladder_diagram, 7970), (sym_fb_diagram, 7970),
     (aux_sym_ERR_fb_variables_after_method_repeat1, 2343), (aux_sym_func_decl_repeat1, 7194),
     (aux_sym_fb_decl_repeat3, 2549), (aux_sym_SFC_repeat1, 7612),
     (aux_sym_stmt_list_repeat1, 2024), (aux_sym_ladder_diagram_repeat1, 8009),
     (aux_sym_fb_diagram_repeat1, 8013), (sym_identifier, 298),
     (aux_sym_ERR_unexpected_this_in_path_token1, 304),
     (aux_sym_ERR_unexpected_super_in_path_token1, 306), (sym_line_comment, 3),
     (anon_sym_LBRACE, 308), (aux_sym_test_pragma_token1, 9), (aux_sym_once_pragma_token1, 11),
     (aux_sym_must_call_pragma_token1, 13), (aux_sym_export_pragma_token1, 15),
     (anon_sym_SEMI, 310), (anon_sym_PERCENT, 312), (aux_sym_input_decls_token1, 314),
     (aux_sym_output_decls_token1, 316), (aux_sym_in_out_decls_token1, 318),
     (aux_sym_var_decls_token1, 320), (aux_sym_temp_var_decls_token1, 322),
     (aux_sym_external_var_decls_token1, 324), (aux_sym_global_var_decls_token1, 326),
     (aux_sym_fb_decl_token4, 1646), (aux_sym_method_decl_token1, 330),
     (aux_sym_prog_access_decls_token1, 332), (aux_sym_initial_step_token1, 334),
     (aux_sym_config_init_token1, 336), (aux_sym__stmt_token1, 340), (aux_sym__stmt_token2, 340),
     (aux_sym__stmt_token3, 340), (aux_sym_if_stmt_token1, 342), (aux_sym_case_stmt_token1, 344),
     (aux_sym_for_stmt_token1, 346), (aux_sym_while_stmt_token1, 348),
     (aux_sym_repeat_stmt_token1, 350), (aux_sym_raise_stmt_token1, 352),
     (aux_sym_try_stmt_token1, 354), (aux_sym_try_stmt_token2, 356),
     (aux_sym_catch_clause_token1, 356), (aux_sym_finally_clause_token1, 356), (sym_ld_rung, 358),
     (sym_fbd_network, 360), (sym_c_style_comment, 3), (sym_pascal_style_comment, 3),
     (sym_pragma, 3)]"

lemma ts_parse_row_658_scan: "row_scan tokens_63_2 0 ts_parse_row_658 = Some (Suc (Suc (Suc (Suc 0))))"
  unfolding ts_parse_row_658_def by simp

text \<open>Lines 129676 to 129788.\<close>

definition ts_parse_row_659 :: parse_row where
  "ts_parse_row_659 =
    [(sym_ERR_assign_func_call, 7530), (sym_ERR_unexpected_this_in_path, 2372),
     (sym_ERR_unexpected_super_in_path, 2372), (sym_ERR_fb_variables_after_method, 1610),
     (sym_ERR_var_access_not_allowed, 3160), (sym_ERR_var_config_not_allowed, 3160),
     (sym_ERR_var_global_not_allowed, 3160), (sym_ERR_method_decl_in_body, 3150),
     (sym_extern_pragma, 7490), (sym_wasm_pragma, 3150), (sym_warn_pragma, 7490),
     (sym_allow_pragma, 3140), (sym_test_pragma, 7490), (sym_once_pragma, 7490),
     (sym_must_call_pragma, 7490), (sym_export_pragma, 7490), (sym_pou_pragma, 7194),
     (sym_direct_variable, 7675), (sym_deref_expression, 2373), (sym_variable, 7599),
     (sym_var_access, 2373), (sym_in_out_decls, 3160), (sym_var_decls, 3160),
     (sym_retain_var_decls, 3160), (sym_temp_var_decls, 3160), (sym_external_var_decls, 3160),
     (sym_global_var_decls, 2947), (sym_loc_partly_var_decl, 3160), (sym__fb_variables, 2343),
     (sym_fb_input_decls, 3160), (sym_fb_output_decls, 3160), (sym_no_retain_var_decls, 3160),
     (sym_fb_body, 9725), (sym_method_decl, 2549), (sym_prog_access_decls, 3043), (sym_SFC, 7970),
     (sym_SFC_network, 7612), (sym_initial_step, 7439), (sym_config_init, 3047),
     (sym_variable_access, 7530), (sym_func_call, 2961), (sym_stmt_list, 7970), (sym__stmt, 2024),
     (sym_assign, 3150), (sym_if_stmt, 3150), (sym_case_stmt, 3150), (sym_for_stmt, 3150),
     (sym_while_stmt, 3150), (sym_repeat_stmt, 3150), (sym_raise_stmt, 3150), (sym_try_stmt, 3150),
     (sym_ERR_clause_outside_try, 3150), (sym_begin_path_expression, 2943), (sym_invocation, 2934),
     (sym_any_invocation, 2935), (sym_this_invocation, 2641), (sym_super_invocation, 2641),
     (sym_super_body_invocation, 2935), (sym_path_expression, 2627), (sym_field_expression, 2373),
     (sym_index_expression, 2373), (sym_ladder_diagram, 7970), (sym_fb_diagram, 7970),
     (aux_sym_ERR_fb_variables_after_method_repeat1, 2343), (aux_sym_func_decl_repeat1, 7194),
     (aux_sym_fb_decl_repeat3, 2549), (aux_sym_SFC_repeat1, 7612),
     (aux_sym_stmt_list_repeat1, 2024), (aux_sym_ladder_diagram_repeat1, 8009),
     (aux_sym_fb_diagram_repeat1, 8013), (sym_identifier, 298),
     (aux_sym_ERR_unexpected_this_in_path_token1, 304),
     (aux_sym_ERR_unexpected_super_in_path_token1, 306), (sym_line_comment, 3),
     (anon_sym_LBRACE, 308), (aux_sym_test_pragma_token1, 9), (aux_sym_once_pragma_token1, 11),
     (aux_sym_must_call_pragma_token1, 13), (aux_sym_export_pragma_token1, 15),
     (anon_sym_SEMI, 310), (anon_sym_PERCENT, 312), (aux_sym_input_decls_token1, 314),
     (aux_sym_output_decls_token1, 316), (aux_sym_in_out_decls_token1, 318),
     (aux_sym_var_decls_token1, 320), (aux_sym_temp_var_decls_token1, 322),
     (aux_sym_external_var_decls_token1, 324), (aux_sym_global_var_decls_token1, 326),
     (aux_sym_fb_decl_token4, 1648), (aux_sym_method_decl_token1, 330),
     (aux_sym_prog_access_decls_token1, 332), (aux_sym_initial_step_token1, 334),
     (aux_sym_config_init_token1, 336), (aux_sym__stmt_token1, 340), (aux_sym__stmt_token2, 340),
     (aux_sym__stmt_token3, 340), (aux_sym_if_stmt_token1, 342), (aux_sym_case_stmt_token1, 344),
     (aux_sym_for_stmt_token1, 346), (aux_sym_while_stmt_token1, 348),
     (aux_sym_repeat_stmt_token1, 350), (aux_sym_raise_stmt_token1, 352),
     (aux_sym_try_stmt_token1, 354), (aux_sym_try_stmt_token2, 356),
     (aux_sym_catch_clause_token1, 356), (aux_sym_finally_clause_token1, 356), (sym_ld_rung, 358),
     (sym_fbd_network, 360), (sym_c_style_comment, 3), (sym_pascal_style_comment, 3),
     (sym_pragma, 3)]"

lemma ts_parse_row_659_scan: "row_scan tokens_63_2 0 ts_parse_row_659 = Some (Suc (Suc (Suc (Suc 0))))"
  unfolding ts_parse_row_659_def by simp

text \<open>Lines 129789 to 129901.\<close>

definition ts_parse_row_660 :: parse_row where
  "ts_parse_row_660 =
    [(sym_ERR_assign_func_call, 7530), (sym_ERR_unexpected_this_in_path, 2372),
     (sym_ERR_unexpected_super_in_path, 2372), (sym_ERR_fb_variables_after_method, 1611),
     (sym_ERR_var_access_not_allowed, 3160), (sym_ERR_var_config_not_allowed, 3160),
     (sym_ERR_var_global_not_allowed, 3160), (sym_ERR_method_decl_in_body, 3150),
     (sym_extern_pragma, 7490), (sym_wasm_pragma, 3150), (sym_warn_pragma, 7490),
     (sym_allow_pragma, 3140), (sym_test_pragma, 7490), (sym_once_pragma, 7490),
     (sym_must_call_pragma, 7490), (sym_export_pragma, 7490), (sym_pou_pragma, 7194),
     (sym_direct_variable, 7675), (sym_deref_expression, 2373), (sym_variable, 7599),
     (sym_var_access, 2373), (sym_in_out_decls, 3160), (sym_var_decls, 3160),
     (sym_retain_var_decls, 3160), (sym_temp_var_decls, 3160), (sym_external_var_decls, 3160),
     (sym_global_var_decls, 2947), (sym_loc_partly_var_decl, 3160), (sym__fb_variables, 2347),
     (sym_fb_input_decls, 3160), (sym_fb_output_decls, 3160), (sym_no_retain_var_decls, 3160),
     (sym_fb_body, 9731), (sym_method_decl, 757), (sym_prog_access_decls, 3043), (sym_SFC, 7970),
     (sym_SFC_network, 7612), (sym_initial_step, 7439), (sym_config_init, 3047),
     (sym_variable_access, 7530), (sym_func_call, 2961), (sym_stmt_list, 7970), (sym__stmt, 2024),
     (sym_assign, 3150), (sym_if_stmt, 3150), (sym_case_stmt, 3150), (sym_for_stmt, 3150),
     (sym_while_stmt, 3150), (sym_repeat_stmt, 3150), (sym_raise_stmt, 3150), (sym_try_stmt, 3150),
     (sym_ERR_clause_outside_try, 3150), (sym_begin_path_expression, 2943), (sym_invocation, 2934),
     (sym_any_invocation, 2935), (sym_this_invocation, 2641), (sym_super_invocation, 2641),
     (sym_super_body_invocation, 2935), (sym_path_expression, 2627), (sym_field_expression, 2373),
     (sym_index_expression, 2373), (sym_ladder_diagram, 7970), (sym_fb_diagram, 7970),
     (aux_sym_ERR_fb_variables_after_method_repeat1, 2347), (aux_sym_func_decl_repeat1, 7194),
     (aux_sym_fb_decl_repeat3, 757), (aux_sym_SFC_repeat1, 7612), (aux_sym_stmt_list_repeat1, 2024),
     (aux_sym_ladder_diagram_repeat1, 8009), (aux_sym_fb_diagram_repeat1, 8013),
     (sym_identifier, 298), (aux_sym_ERR_unexpected_this_in_path_token1, 304),
     (aux_sym_ERR_unexpected_super_in_path_token1, 306), (sym_line_comment, 3),
     (anon_sym_LBRACE, 308), (aux_sym_test_pragma_token1, 9), (aux_sym_once_pragma_token1, 11),
     (aux_sym_must_call_pragma_token1, 13), (aux_sym_export_pragma_token1, 15),
     (anon_sym_SEMI, 310), (anon_sym_PERCENT, 312), (aux_sym_input_decls_token1, 314),
     (aux_sym_output_decls_token1, 316), (aux_sym_in_out_decls_token1, 318),
     (aux_sym_var_decls_token1, 320), (aux_sym_temp_var_decls_token1, 322),
     (aux_sym_external_var_decls_token1, 324), (aux_sym_global_var_decls_token1, 326),
     (aux_sym_fb_decl_token4, 1650), (aux_sym_method_decl_token1, 330),
     (aux_sym_prog_access_decls_token1, 332), (aux_sym_initial_step_token1, 334),
     (aux_sym_config_init_token1, 336), (aux_sym__stmt_token1, 340), (aux_sym__stmt_token2, 340),
     (aux_sym__stmt_token3, 340), (aux_sym_if_stmt_token1, 342), (aux_sym_case_stmt_token1, 344),
     (aux_sym_for_stmt_token1, 346), (aux_sym_while_stmt_token1, 348),
     (aux_sym_repeat_stmt_token1, 350), (aux_sym_raise_stmt_token1, 352),
     (aux_sym_try_stmt_token1, 354), (aux_sym_try_stmt_token2, 356),
     (aux_sym_catch_clause_token1, 356), (aux_sym_finally_clause_token1, 356), (sym_ld_rung, 358),
     (sym_fbd_network, 360), (sym_c_style_comment, 3), (sym_pascal_style_comment, 3),
     (sym_pragma, 3)]"

lemma ts_parse_row_660_scan: "row_scan tokens_63_2 0 ts_parse_row_660 = Some (Suc (Suc (Suc (Suc 0))))"
  unfolding ts_parse_row_660_def by simp

text \<open>Lines 129902 to 130014.\<close>

definition ts_parse_row_661 :: parse_row where
  "ts_parse_row_661 =
    [(sym_ERR_assign_func_call, 7530), (sym_ERR_unexpected_this_in_path, 2372),
     (sym_ERR_unexpected_super_in_path, 2372), (sym_ERR_fb_variables_after_method, 1613),
     (sym_ERR_var_access_not_allowed, 3160), (sym_ERR_var_config_not_allowed, 3160),
     (sym_ERR_var_global_not_allowed, 3160), (sym_ERR_method_decl_in_body, 3150),
     (sym_extern_pragma, 7490), (sym_wasm_pragma, 3150), (sym_warn_pragma, 7490),
     (sym_allow_pragma, 3140), (sym_test_pragma, 7490), (sym_once_pragma, 7490),
     (sym_must_call_pragma, 7490), (sym_export_pragma, 7490), (sym_pou_pragma, 7194),
     (sym_direct_variable, 7675), (sym_deref_expression, 2373), (sym_variable, 7599),
     (sym_var_access, 2373), (sym_in_out_decls, 3160), (sym_var_decls, 3160),
     (sym_retain_var_decls, 3160), (sym_temp_var_decls, 3160), (sym_external_var_decls, 3160),
     (sym_global_var_decls, 2947), (sym_loc_partly_var_decl, 3160), (sym__fb_variables, 2343),
     (sym_fb_input_decls, 3160), (sym_fb_output_decls, 3160), (sym_no_retain_var_decls, 3160),
     (sym_fb_body, 9735), (sym_method_decl, 2549), (sym_prog_access_decls, 3043), (sym_SFC, 7970),
     (sym_SFC_network, 7612), (sym_initial_step, 7439), (sym_config_init, 3047),
     (sym_variable_access, 7530), (sym_func_call, 2961), (sym_stmt_list, 7970), (sym__stmt, 2024),
     (sym_assign, 3150), (sym_if_stmt, 3150), (sym_case_stmt, 3150), (sym_for_stmt, 3150),
     (sym_while_stmt, 3150), (sym_repeat_stmt, 3150), (sym_raise_stmt, 3150), (sym_try_stmt, 3150),
     (sym_ERR_clause_outside_try, 3150), (sym_begin_path_expression, 2943), (sym_invocation, 2934),
     (sym_any_invocation, 2935), (sym_this_invocation, 2641), (sym_super_invocation, 2641),
     (sym_super_body_invocation, 2935), (sym_path_expression, 2627), (sym_field_expression, 2373),
     (sym_index_expression, 2373), (sym_ladder_diagram, 7970), (sym_fb_diagram, 7970),
     (aux_sym_ERR_fb_variables_after_method_repeat1, 2343), (aux_sym_func_decl_repeat1, 7194),
     (aux_sym_fb_decl_repeat3, 2549), (aux_sym_SFC_repeat1, 7612),
     (aux_sym_stmt_list_repeat1, 2024), (aux_sym_ladder_diagram_repeat1, 8009),
     (aux_sym_fb_diagram_repeat1, 8013), (sym_identifier, 298),
     (aux_sym_ERR_unexpected_this_in_path_token1, 304),
     (aux_sym_ERR_unexpected_super_in_path_token1, 306), (sym_line_comment, 3),
     (anon_sym_LBRACE, 308), (aux_sym_test_pragma_token1, 9), (aux_sym_once_pragma_token1, 11),
     (aux_sym_must_call_pragma_token1, 13), (aux_sym_export_pragma_token1, 15),
     (anon_sym_SEMI, 310), (anon_sym_PERCENT, 312), (aux_sym_input_decls_token1, 314),
     (aux_sym_output_decls_token1, 316), (aux_sym_in_out_decls_token1, 318),
     (aux_sym_var_decls_token1, 320), (aux_sym_temp_var_decls_token1, 322),
     (aux_sym_external_var_decls_token1, 324), (aux_sym_global_var_decls_token1, 326),
     (aux_sym_fb_decl_token4, 1652), (aux_sym_method_decl_token1, 330),
     (aux_sym_prog_access_decls_token1, 332), (aux_sym_initial_step_token1, 334),
     (aux_sym_config_init_token1, 336), (aux_sym__stmt_token1, 340), (aux_sym__stmt_token2, 340),
     (aux_sym__stmt_token3, 340), (aux_sym_if_stmt_token1, 342), (aux_sym_case_stmt_token1, 344),
     (aux_sym_for_stmt_token1, 346), (aux_sym_while_stmt_token1, 348),
     (aux_sym_repeat_stmt_token1, 350), (aux_sym_raise_stmt_token1, 352),
     (aux_sym_try_stmt_token1, 354), (aux_sym_try_stmt_token2, 356),
     (aux_sym_catch_clause_token1, 356), (aux_sym_finally_clause_token1, 356), (sym_ld_rung, 358),
     (sym_fbd_network, 360), (sym_c_style_comment, 3), (sym_pascal_style_comment, 3),
     (sym_pragma, 3)]"

lemma ts_parse_row_661_scan: "row_scan tokens_63_2 0 ts_parse_row_661 = Some (Suc (Suc (Suc (Suc 0))))"
  unfolding ts_parse_row_661_def by simp

text \<open>Lines 130015 to 130127.\<close>

definition ts_parse_row_662 :: parse_row where
  "ts_parse_row_662 =
    [(sym_ERR_assign_func_call, 7530), (sym_ERR_unexpected_this_in_path, 2372),
     (sym_ERR_unexpected_super_in_path, 2372), (sym_ERR_fb_variables_after_method, 1614),
     (sym_ERR_var_access_not_allowed, 3160), (sym_ERR_var_config_not_allowed, 3160),
     (sym_ERR_var_global_not_allowed, 3160), (sym_ERR_method_decl_in_body, 3150),
     (sym_extern_pragma, 7490), (sym_wasm_pragma, 3150), (sym_warn_pragma, 7490),
     (sym_allow_pragma, 3140), (sym_test_pragma, 7490), (sym_once_pragma, 7490),
     (sym_must_call_pragma, 7490), (sym_export_pragma, 7490), (sym_pou_pragma, 7194),
     (sym_direct_variable, 7675), (sym_deref_expression, 2373), (sym_variable, 7599),
     (sym_var_access, 2373), (sym_in_out_decls, 3160), (sym_var_decls, 3160),
     (sym_retain_var_decls, 3160), (sym_temp_var_decls, 3160), (sym_external_var_decls, 3160),
     (sym_global_var_decls, 2947), (sym_loc_partly_var_decl, 3160), (sym__fb_variables, 2343),
     (sym_fb_input_decls, 3160), (sym_fb_output_decls, 3160), (sym_no_retain_var_decls, 3160),
     (sym_fb_body, 9749), (sym_method_decl, 2549), (sym_prog_access_decls, 3043), (sym_SFC, 7970),
     (sym_SFC_network, 7612), (sym_initial_step, 7439), (sym_config_init, 3047),
     (sym_variable_access, 7530), (sym_func_call, 2961), (sym_stmt_list, 7970), (sym__stmt, 2024),
     (sym_assign, 3150), (sym_if_stmt, 3150), (sym_case_stmt, 3150), (sym_for_stmt, 3150),
     (sym_while_stmt, 3150), (sym_repeat_stmt, 3150), (sym_raise_stmt, 3150), (sym_try_stmt, 3150),
     (sym_ERR_clause_outside_try, 3150), (sym_begin_path_expression, 2943), (sym_invocation, 2934),
     (sym_any_invocation, 2935), (sym_this_invocation, 2641), (sym_super_invocation, 2641),
     (sym_super_body_invocation, 2935), (sym_path_expression, 2627), (sym_field_expression, 2373),
     (sym_index_expression, 2373), (sym_ladder_diagram, 7970), (sym_fb_diagram, 7970),
     (aux_sym_ERR_fb_variables_after_method_repeat1, 2343), (aux_sym_func_decl_repeat1, 7194),
     (aux_sym_fb_decl_repeat3, 2549), (aux_sym_SFC_repeat1, 7612),
     (aux_sym_stmt_list_repeat1, 2024), (aux_sym_ladder_diagram_repeat1, 8009),
     (aux_sym_fb_diagram_repeat1, 8013), (sym_identifier, 298),
     (aux_sym_ERR_unexpected_this_in_path_token1, 304),
     (aux_sym_ERR_unexpected_super_in_path_token1, 306), (sym_line_comment, 3),
     (anon_sym_LBRACE, 308), (aux_sym_test_pragma_token1, 9), (aux_sym_once_pragma_token1, 11),
     (aux_sym_must_call_pragma_token1, 13), (aux_sym_export_pragma_token1, 15),
     (anon_sym_SEMI, 310), (anon_sym_PERCENT, 312), (aux_sym_input_decls_token1, 314),
     (aux_sym_output_decls_token1, 316), (aux_sym_in_out_decls_token1, 318),
     (aux_sym_var_decls_token1, 320), (aux_sym_temp_var_decls_token1, 322),
     (aux_sym_external_var_decls_token1, 324), (aux_sym_global_var_decls_token1, 326),
     (aux_sym_fb_decl_token4, 1654), (aux_sym_method_decl_token1, 330),
     (aux_sym_prog_access_decls_token1, 332), (aux_sym_initial_step_token1, 334),
     (aux_sym_config_init_token1, 336), (aux_sym__stmt_token1, 340), (aux_sym__stmt_token2, 340),
     (aux_sym__stmt_token3, 340), (aux_sym_if_stmt_token1, 342), (aux_sym_case_stmt_token1, 344),
     (aux_sym_for_stmt_token1, 346), (aux_sym_while_stmt_token1, 348),
     (aux_sym_repeat_stmt_token1, 350), (aux_sym_raise_stmt_token1, 352),
     (aux_sym_try_stmt_token1, 354), (aux_sym_try_stmt_token2, 356),
     (aux_sym_catch_clause_token1, 356), (aux_sym_finally_clause_token1, 356), (sym_ld_rung, 358),
     (sym_fbd_network, 360), (sym_c_style_comment, 3), (sym_pascal_style_comment, 3),
     (sym_pragma, 3)]"

lemma ts_parse_row_662_scan: "row_scan tokens_63_2 0 ts_parse_row_662 = Some (Suc (Suc (Suc (Suc 0))))"
  unfolding ts_parse_row_662_def by simp

text \<open>Lines 130128 to 130240.\<close>

definition ts_parse_row_663 :: parse_row where
  "ts_parse_row_663 =
    [(sym_ERR_assign_func_call, 7530), (sym_ERR_unexpected_this_in_path, 2372),
     (sym_ERR_unexpected_super_in_path, 2372), (sym_ERR_fb_variables_after_method, 1615),
     (sym_ERR_var_access_not_allowed, 3160), (sym_ERR_var_config_not_allowed, 3160),
     (sym_ERR_var_global_not_allowed, 3160), (sym_ERR_method_decl_in_body, 3150),
     (sym_extern_pragma, 7490), (sym_wasm_pragma, 3150), (sym_warn_pragma, 7490),
     (sym_allow_pragma, 3140), (sym_test_pragma, 7490), (sym_once_pragma, 7490),
     (sym_must_call_pragma, 7490), (sym_export_pragma, 7490), (sym_pou_pragma, 7194),
     (sym_direct_variable, 7675), (sym_deref_expression, 2373), (sym_variable, 7599),
     (sym_var_access, 2373), (sym_in_out_decls, 3160), (sym_var_decls, 3160),
     (sym_retain_var_decls, 3160), (sym_temp_var_decls, 3160), (sym_external_var_decls, 3160),
     (sym_global_var_decls, 2947), (sym_loc_partly_var_decl, 3160), (sym__fb_variables, 2347),
     (sym_fb_input_decls, 3160), (sym_fb_output_decls, 3160), (sym_no_retain_var_decls, 3160),
     (sym_fb_body, 9755), (sym_method_decl, 758), (sym_prog_access_decls, 3043), (sym_SFC, 7970),
     (sym_SFC_network, 7612), (sym_initial_step, 7439), (sym_config_init, 3047),
     (sym_variable_access, 7530), (sym_func_call, 2961), (sym_stmt_list, 7970), (sym__stmt, 2024),
     (sym_assign, 3150), (sym_if_stmt, 3150), (sym_case_stmt, 3150), (sym_for_stmt, 3150),
     (sym_while_stmt, 3150), (sym_repeat_stmt, 3150), (sym_raise_stmt, 3150), (sym_try_stmt, 3150),
     (sym_ERR_clause_outside_try, 3150), (sym_begin_path_expression, 2943), (sym_invocation, 2934),
     (sym_any_invocation, 2935), (sym_this_invocation, 2641), (sym_super_invocation, 2641),
     (sym_super_body_invocation, 2935), (sym_path_expression, 2627), (sym_field_expression, 2373),
     (sym_index_expression, 2373), (sym_ladder_diagram, 7970), (sym_fb_diagram, 7970),
     (aux_sym_ERR_fb_variables_after_method_repeat1, 2347), (aux_sym_func_decl_repeat1, 7194),
     (aux_sym_fb_decl_repeat3, 758), (aux_sym_SFC_repeat1, 7612), (aux_sym_stmt_list_repeat1, 2024),
     (aux_sym_ladder_diagram_repeat1, 8009), (aux_sym_fb_diagram_repeat1, 8013),
     (sym_identifier, 298), (aux_sym_ERR_unexpected_this_in_path_token1, 304),
     (aux_sym_ERR_unexpected_super_in_path_token1, 306), (sym_line_comment, 3),
     (anon_sym_LBRACE, 308), (aux_sym_test_pragma_token1, 9), (aux_sym_once_pragma_token1, 11),
     (aux_sym_must_call_pragma_token1, 13), (aux_sym_export_pragma_token1, 15),
     (anon_sym_SEMI, 310), (anon_sym_PERCENT, 312), (aux_sym_input_decls_token1, 314),
     (aux_sym_output_decls_token1, 316), (aux_sym_in_out_decls_token1, 318),
     (aux_sym_var_decls_token1, 320), (aux_sym_temp_var_decls_token1, 322),
     (aux_sym_external_var_decls_token1, 324), (aux_sym_global_var_decls_token1, 326),
     (aux_sym_fb_decl_token4, 1656), (aux_sym_method_decl_token1, 330),
     (aux_sym_prog_access_decls_token1, 332), (aux_sym_initial_step_token1, 334),
     (aux_sym_config_init_token1, 336), (aux_sym__stmt_token1, 340), (aux_sym__stmt_token2, 340),
     (aux_sym__stmt_token3, 340), (aux_sym_if_stmt_token1, 342), (aux_sym_case_stmt_token1, 344),
     (aux_sym_for_stmt_token1, 346), (aux_sym_while_stmt_token1, 348),
     (aux_sym_repeat_stmt_token1, 350), (aux_sym_raise_stmt_token1, 352),
     (aux_sym_try_stmt_token1, 354), (aux_sym_try_stmt_token2, 356),
     (aux_sym_catch_clause_token1, 356), (aux_sym_finally_clause_token1, 356), (sym_ld_rung, 358),
     (sym_fbd_network, 360), (sym_c_style_comment, 3), (sym_pascal_style_comment, 3),
     (sym_pragma, 3)]"

lemma ts_parse_row_663_scan: "row_scan tokens_63_2 0 ts_parse_row_663 = Some (Suc (Suc (Suc (Suc 0))))"
  unfolding ts_parse_row_663_def by simp

text \<open>Lines 130241 to 130353.\<close>

definition ts_parse_row_664 :: parse_row where
  "ts_parse_row_664 =
    [(sym_ERR_assign_func_call, 7530), (sym_ERR_unexpected_this_in_path, 2372),
     (sym_ERR_unexpected_super_in_path, 2372), (sym_ERR_fb_variables_after_method, 1616),
     (sym_ERR_var_access_not_allowed, 3160), (sym_ERR_var_config_not_allowed, 3160),
     (sym_ERR_var_global_not_allowed, 3160), (sym_ERR_method_decl_in_body, 3150),
     (sym_extern_pragma, 7490), (sym_wasm_pragma, 3150), (sym_warn_pragma, 7490),
     (sym_allow_pragma, 3140), (sym_test_pragma, 7490), (sym_once_pragma, 7490),
     (sym_must_call_pragma, 7490), (sym_export_pragma, 7490), (sym_pou_pragma, 7194),
     (sym_direct_variable, 7675), (sym_deref_expression, 2373), (sym_variable, 7599),
     (sym_var_access, 2373), (sym_in_out_decls, 3160), (sym_var_decls, 3160),
     (sym_retain_var_decls, 3160), (sym_temp_var_decls, 3160), (sym_external_var_decls, 3160),
     (sym_global_var_decls, 2947), (sym_loc_partly_var_decl, 3160), (sym__fb_variables, 2343),
     (sym_fb_input_decls, 3160), (sym_fb_output_decls, 3160), (sym_no_retain_var_decls, 3160),
     (sym_fb_body, 9762), (sym_method_decl, 2549), (sym_prog_access_decls, 3043), (sym_SFC, 7970),
     (sym_SFC_network, 7612), (sym_initial_step, 7439), (sym_config_init, 3047),
     (sym_variable_access, 7530), (sym_func_call, 2961), (sym_stmt_list, 7970), (sym__stmt, 2024),
     (sym_assign, 3150), (sym_if_stmt, 3150), (sym_case_stmt, 3150), (sym_for_stmt, 3150),
     (sym_while_stmt, 3150), (sym_repeat_stmt, 3150), (sym_raise_stmt, 3150), (sym_try_stmt, 3150),
     (sym_ERR_clause_outside_try, 3150), (sym_begin_path_expression, 2943), (sym_invocation, 2934),
     (sym_any_invocation, 2935), (sym_this_invocation, 2641), (sym_super_invocation, 2641),
     (sym_super_body_invocation, 2935), (sym_path_expression, 2627), (sym_field_expression, 2373),
     (sym_index_expression, 2373), (sym_ladder_diagram, 7970), (sym_fb_diagram, 7970),
     (aux_sym_ERR_fb_variables_after_method_repeat1, 2343), (aux_sym_func_decl_repeat1, 7194),
     (aux_sym_fb_decl_repeat3, 2549), (aux_sym_SFC_repeat1, 7612),
     (aux_sym_stmt_list_repeat1, 2024), (aux_sym_ladder_diagram_repeat1, 8009),
     (aux_sym_fb_diagram_repeat1, 8013), (sym_identifier, 298),
     (aux_sym_ERR_unexpected_this_in_path_token1, 304),
     (aux_sym_ERR_unexpected_super_in_path_token1, 306), (sym_line_comment, 3),
     (anon_sym_LBRACE, 308), (aux_sym_test_pragma_token1, 9), (aux_sym_once_pragma_token1, 11),
     (aux_sym_must_call_pragma_token1, 13), (aux_sym_export_pragma_token1, 15),
     (anon_sym_SEMI, 310), (anon_sym_PERCENT, 312), (aux_sym_input_decls_token1, 314),
     (aux_sym_output_decls_token1, 316), (aux_sym_in_out_decls_token1, 318),
     (aux_sym_var_decls_token1, 320), (aux_sym_temp_var_decls_token1, 322),
     (aux_sym_external_var_decls_token1, 324), (aux_sym_global_var_decls_token1, 326),
     (aux_sym_fb_decl_token4, 1658), (aux_sym_method_decl_token1, 330),
     (aux_sym_prog_access_decls_token1, 332), (aux_sym_initial_step_token1, 334),
     (aux_sym_config_init_token1, 336), (aux_sym__stmt_token1, 340), (aux_sym__stmt_token2, 340),
     (aux_sym__stmt_token3, 340), (aux_sym_if_stmt_token1, 342), (aux_sym_case_stmt_token1, 344),
     (aux_sym_for_stmt_token1, 346), (aux_sym_while_stmt_token1, 348),
     (aux_sym_repeat_stmt_token1, 350), (aux_sym_raise_stmt_token1, 352),
     (aux_sym_try_stmt_token1, 354), (aux_sym_try_stmt_token2, 356),
     (aux_sym_catch_clause_token1, 356), (aux_sym_finally_clause_token1, 356), (sym_ld_rung, 358),
     (sym_fbd_network, 360), (sym_c_style_comment, 3), (sym_pascal_style_comment, 3),
     (sym_pragma, 3)]"

lemma ts_parse_row_664_scan: "row_scan tokens_63_2 0 ts_parse_row_664 = Some (Suc (Suc (Suc (Suc 0))))"
  unfolding ts_parse_row_664_def by simp

text \<open>Lines 130354 to 130466.\<close>

definition ts_parse_row_665 :: parse_row where
  "ts_parse_row_665 =
    [(sym_ERR_assign_func_call, 7530), (sym_ERR_unexpected_this_in_path, 2372),
     (sym_ERR_unexpected_super_in_path, 2372), (sym_ERR_fb_variables_after_method, 1617),
     (sym_ERR_var_access_not_allowed, 3160), (sym_ERR_var_config_not_allowed, 3160),
     (sym_ERR_var_global_not_allowed, 3160), (sym_ERR_method_decl_in_body, 3150),
     (sym_extern_pragma, 7490), (sym_wasm_pragma, 3150), (sym_warn_pragma, 7490),
     (sym_allow_pragma, 3140), (sym_test_pragma, 7490), (sym_once_pragma, 7490),
     (sym_must_call_pragma, 7490), (sym_export_pragma, 7490), (sym_pou_pragma, 7194),
     (sym_direct_variable, 7675), (sym_deref_expression, 2373), (sym_variable, 7599),
     (sym_var_access, 2373), (sym_in_out_decls, 3160), (sym_var_decls, 3160),
     (sym_retain_var_decls, 3160), (sym_temp_var_decls, 3160), (sym_external_var_decls, 3160),
     (sym_global_var_decls, 2947), (sym_loc_partly_var_decl, 3160), (sym__fb_variables, 2347),
     (sym_fb_input_decls, 3160), (sym_fb_output_decls, 3160), (sym_no_retain_var_decls, 3160),
     (sym_fb_body, 9767), (sym_method_decl, 759), (sym_prog_access_decls, 3043), (sym_SFC, 7970),
     (sym_SFC_network, 7612), (sym_initial_step, 7439), (sym_config_init, 3047),
     (sym_variable_access, 7530), (sym_func_call, 2961), (sym_stmt_list, 7970), (sym__stmt, 2024),
     (sym_assign, 3150), (sym_if_stmt, 3150), (sym_case_stmt, 3150), (sym_for_stmt, 3150),
     (sym_while_stmt, 3150), (sym_repeat_stmt, 3150), (sym_raise_stmt, 3150), (sym_try_stmt, 3150),
     (sym_ERR_clause_outside_try, 3150), (sym_begin_path_expression, 2943), (sym_invocation, 2934),
     (sym_any_invocation, 2935), (sym_this_invocation, 2641), (sym_super_invocation, 2641),
     (sym_super_body_invocation, 2935), (sym_path_expression, 2627), (sym_field_expression, 2373),
     (sym_index_expression, 2373), (sym_ladder_diagram, 7970), (sym_fb_diagram, 7970),
     (aux_sym_ERR_fb_variables_after_method_repeat1, 2347), (aux_sym_func_decl_repeat1, 7194),
     (aux_sym_fb_decl_repeat3, 759), (aux_sym_SFC_repeat1, 7612), (aux_sym_stmt_list_repeat1, 2024),
     (aux_sym_ladder_diagram_repeat1, 8009), (aux_sym_fb_diagram_repeat1, 8013),
     (sym_identifier, 298), (aux_sym_ERR_unexpected_this_in_path_token1, 304),
     (aux_sym_ERR_unexpected_super_in_path_token1, 306), (sym_line_comment, 3),
     (anon_sym_LBRACE, 308), (aux_sym_test_pragma_token1, 9), (aux_sym_once_pragma_token1, 11),
     (aux_sym_must_call_pragma_token1, 13), (aux_sym_export_pragma_token1, 15),
     (anon_sym_SEMI, 310), (anon_sym_PERCENT, 312), (aux_sym_input_decls_token1, 314),
     (aux_sym_output_decls_token1, 316), (aux_sym_in_out_decls_token1, 318),
     (aux_sym_var_decls_token1, 320), (aux_sym_temp_var_decls_token1, 322),
     (aux_sym_external_var_decls_token1, 324), (aux_sym_global_var_decls_token1, 326),
     (aux_sym_fb_decl_token4, 1660), (aux_sym_method_decl_token1, 330),
     (aux_sym_prog_access_decls_token1, 332), (aux_sym_initial_step_token1, 334),
     (aux_sym_config_init_token1, 336), (aux_sym__stmt_token1, 340), (aux_sym__stmt_token2, 340),
     (aux_sym__stmt_token3, 340), (aux_sym_if_stmt_token1, 342), (aux_sym_case_stmt_token1, 344),
     (aux_sym_for_stmt_token1, 346), (aux_sym_while_stmt_token1, 348),
     (aux_sym_repeat_stmt_token1, 350), (aux_sym_raise_stmt_token1, 352),
     (aux_sym_try_stmt_token1, 354), (aux_sym_try_stmt_token2, 356),
     (aux_sym_catch_clause_token1, 356), (aux_sym_finally_clause_token1, 356), (sym_ld_rung, 358),
     (sym_fbd_network, 360), (sym_c_style_comment, 3), (sym_pascal_style_comment, 3),
     (sym_pragma, 3)]"

lemma ts_parse_row_665_scan: "row_scan tokens_63_2 0 ts_parse_row_665 = Some (Suc (Suc (Suc (Suc 0))))"
  unfolding ts_parse_row_665_def by simp

text \<open>Lines 130467 to 130579.\<close>

definition ts_parse_row_666 :: parse_row where
  "ts_parse_row_666 =
    [(sym_ERR_assign_func_call, 7530), (sym_ERR_unexpected_this_in_path, 2372),
     (sym_ERR_unexpected_super_in_path, 2372), (sym_ERR_fb_variables_after_method, 1771),
     (sym_ERR_var_access_not_allowed, 3160), (sym_ERR_var_config_not_allowed, 3160),
     (sym_ERR_var_global_not_allowed, 3160), (sym_ERR_method_decl_in_body, 3150),
     (sym_extern_pragma, 7490), (sym_wasm_pragma, 3150), (sym_warn_pragma, 7490),
     (sym_allow_pragma, 3140), (sym_test_pragma, 7490), (sym_once_pragma, 7490),
     (sym_must_call_pragma, 7490), (sym_export_pragma, 7490), (sym_pou_pragma, 7194),
     (sym_direct_variable, 7675), (sym_deref_expression, 2373), (sym_variable, 7599),
     (sym_var_access, 2373), (sym_in_out_decls, 3160), (sym_var_decls, 3160),
     (sym_retain_var_decls, 3160), (sym_temp_var_decls, 3160), (sym_external_var_decls, 3160),
     (sym_global_var_decls, 2947), (sym_loc_partly_var_decl, 3160), (sym__fb_variables, 2343),
     (sym_fb_input_decls, 3160), (sym_fb_output_decls, 3160), (sym_no_retain_var_decls, 3160),
     (sym_fb_body, 9362), (sym_method_decl, 2549), (sym_prog_access_decls, 3043), (sym_SFC, 7970),
     (sym_SFC_network, 7612), (sym_initial_step, 7439), (sym_config_init, 3047),
     (sym_variable_access, 7530), (sym_func_call, 2961), (sym_stmt_list, 7970), (sym__stmt, 2024),
     (sym_assign, 3150), (sym_if_stmt, 3150), (sym_case_stmt, 3150), (sym_for_stmt, 3150),
     (sym_while_stmt, 3150), (sym_repeat_stmt, 3150), (sym_raise_stmt, 3150), (sym_try_stmt, 3150),
     (sym_ERR_clause_outside_try, 3150), (sym_begin_path_expression, 2943), (sym_invocation, 2934),
     (sym_any_invocation, 2935), (sym_this_invocation, 2641), (sym_super_invocation, 2641),
     (sym_super_body_invocation, 2935), (sym_path_expression, 2627), (sym_field_expression, 2373),
     (sym_index_expression, 2373), (sym_ladder_diagram, 7970), (sym_fb_diagram, 7970),
     (aux_sym_ERR_fb_variables_after_method_repeat1, 2343), (aux_sym_func_decl_repeat1, 7194),
     (aux_sym_fb_decl_repeat3, 2549), (aux_sym_SFC_repeat1, 7612),
     (aux_sym_stmt_list_repeat1, 2024), (aux_sym_ladder_diagram_repeat1, 8009),
     (aux_sym_fb_diagram_repeat1, 8013), (sym_identifier, 298),
     (aux_sym_ERR_unexpected_this_in_path_token1, 304),
     (aux_sym_ERR_unexpected_super_in_path_token1, 306), (sym_line_comment, 3),
     (anon_sym_LBRACE, 308), (aux_sym_test_pragma_token1, 9), (aux_sym_once_pragma_token1, 11),
     (aux_sym_must_call_pragma_token1, 13), (aux_sym_export_pragma_token1, 15),
     (anon_sym_SEMI, 310), (anon_sym_PERCENT, 312), (aux_sym_input_decls_token1, 314),
     (aux_sym_output_decls_token1, 316), (aux_sym_in_out_decls_token1, 318),
     (aux_sym_var_decls_token1, 320), (aux_sym_temp_var_decls_token1, 322),
     (aux_sym_external_var_decls_token1, 324), (aux_sym_global_var_decls_token1, 326),
     (aux_sym_fb_decl_token4, 1662), (aux_sym_method_decl_token1, 330),
     (aux_sym_prog_access_decls_token1, 332), (aux_sym_initial_step_token1, 334),
     (aux_sym_config_init_token1, 336), (aux_sym__stmt_token1, 340), (aux_sym__stmt_token2, 340),
     (aux_sym__stmt_token3, 340), (aux_sym_if_stmt_token1, 342), (aux_sym_case_stmt_token1, 344),
     (aux_sym_for_stmt_token1, 346), (aux_sym_while_stmt_token1, 348),
     (aux_sym_repeat_stmt_token1, 350), (aux_sym_raise_stmt_token1, 352),
     (aux_sym_try_stmt_token1, 354), (aux_sym_try_stmt_token2, 356),
     (aux_sym_catch_clause_token1, 356), (aux_sym_finally_clause_token1, 356), (sym_ld_rung, 358),
     (sym_fbd_network, 360), (sym_c_style_comment, 3), (sym_pascal_style_comment, 3),
     (sym_pragma, 3)]"

lemma ts_parse_row_666_scan: "row_scan tokens_63_2 0 ts_parse_row_666 = Some (Suc (Suc (Suc (Suc 0))))"
  unfolding ts_parse_row_666_def by simp

text \<open>Lines 130580 to 130692.\<close>

definition ts_parse_row_667 :: parse_row where
  "ts_parse_row_667 =
    [(sym_ERR_assign_func_call, 7530), (sym_ERR_unexpected_this_in_path, 2372),
     (sym_ERR_unexpected_super_in_path, 2372), (sym_ERR_fb_variables_after_method, 1622),
     (sym_ERR_var_access_not_allowed, 3160), (sym_ERR_var_config_not_allowed, 3160),
     (sym_ERR_var_global_not_allowed, 3160), (sym_ERR_method_decl_in_body, 3150),
     (sym_extern_pragma, 7490), (sym_wasm_pragma, 3150), (sym_warn_pragma, 7490),
     (sym_allow_pragma, 3140), (sym_test_pragma, 7490), (sym_once_pragma, 7490),
     (sym_must_call_pragma, 7490), (sym_export_pragma, 7490), (sym_pou_pragma, 7194),
     (sym_direct_variable, 7675), (sym_deref_expression, 2373), (sym_variable, 7599),
     (sym_var_access, 2373), (sym_in_out_decls, 3160), (sym_var_decls, 3160),
     (sym_retain_var_decls, 3160), (sym_temp_var_decls, 3160), (sym_external_var_decls, 3160),
     (sym_global_var_decls, 2947), (sym_loc_partly_var_decl, 3160), (sym__fb_variables, 2343),
     (sym_fb_input_decls, 3160), (sym_fb_output_decls, 3160), (sym_no_retain_var_decls, 3160),
     (sym_fb_body, 9776), (sym_method_decl, 2549), (sym_prog_access_decls, 3043), (sym_SFC, 7970),
     (sym_SFC_network, 7612), (sym_initial_step, 7439), (sym_config_init, 3047),
     (sym_variable_access, 7530), (sym_func_call, 2961), (sym_stmt_list, 7970), (sym__stmt, 2024),
     (sym_assign, 3150), (sym_if_stmt, 3150), (sym_case_stmt, 3150), (sym_for_stmt, 3150),
     (sym_while_stmt, 3150), (sym_repeat_stmt, 3150), (sym_raise_stmt, 3150), (sym_try_stmt, 3150),
     (sym_ERR_clause_outside_try, 3150), (sym_begin_path_expression, 2943), (sym_invocation, 2934),
     (sym_any_invocation, 2935), (sym_this_invocation, 2641), (sym_super_invocation, 2641),
     (sym_super_body_invocation, 2935), (sym_path_expression, 2627), (sym_field_expression, 2373),
     (sym_index_expression, 2373), (sym_ladder_diagram, 7970), (sym_fb_diagram, 7970),
     (aux_sym_ERR_fb_variables_after_method_repeat1, 2343), (aux_sym_func_decl_repeat1, 7194),
     (aux_sym_fb_decl_repeat3, 2549), (aux_sym_SFC_repeat1, 7612),
     (aux_sym_stmt_list_repeat1, 2024), (aux_sym_ladder_diagram_repeat1, 8009),
     (aux_sym_fb_diagram_repeat1, 8013), (sym_identifier, 298),
     (aux_sym_ERR_unexpected_this_in_path_token1, 304),
     (aux_sym_ERR_unexpected_super_in_path_token1, 306), (sym_line_comment, 3),
     (anon_sym_LBRACE, 308), (aux_sym_test_pragma_token1, 9), (aux_sym_once_pragma_token1, 11),
     (aux_sym_must_call_pragma_token1, 13), (aux_sym_export_pragma_token1, 15),
     (anon_sym_SEMI, 310), (anon_sym_PERCENT, 312), (aux_sym_input_decls_token1, 314),
     (aux_sym_output_decls_token1, 316), (aux_sym_in_out_decls_token1, 318),
     (aux_sym_var_decls_token1, 320), (aux_sym_temp_var_decls_token1, 322),
     (aux_sym_external_var_decls_token1, 324), (aux_sym_global_var_decls_token1, 326),
     (aux_sym_fb_decl_token4, 1664), (aux_sym_method_decl_token1, 330),
     (aux_sym_prog_access_decls_token1, 332), (aux_sym_initial_step_token1, 334),
     (aux_sym_config_init_token1, 336), (aux_sym__stmt_token1, 340), (aux_sym__stmt_token2, 340),
     (aux_sym__stmt_token3, 340), (aux_sym_if_stmt_token1, 342), (aux_sym_case_stmt_token1, 344),
     (aux_sym_for_stmt_token1, 346), (aux_sym_while_stmt_token1, 348),
     (aux_sym_repeat_stmt_token1, 350), (aux_sym_raise_stmt_token1, 352),
     (aux_sym_try_stmt_token1, 354), (aux_sym_try_stmt_token2, 356),
     (aux_sym_catch_clause_token1, 356), (aux_sym_finally_clause_token1, 356), (sym_ld_rung, 358),
     (sym_fbd_network, 360), (sym_c_style_comment, 3), (sym_pascal_style_comment, 3),
     (sym_pragma, 3)]"

lemma ts_parse_row_667_scan: "row_scan tokens_63_2 0 ts_parse_row_667 = Some (Suc (Suc (Suc (Suc 0))))"
  unfolding ts_parse_row_667_def by simp

text \<open>Lines 130693 to 130805.\<close>

definition ts_parse_row_668 :: parse_row where
  "ts_parse_row_668 =
    [(sym_ERR_assign_func_call, 7530), (sym_ERR_unexpected_this_in_path, 2372),
     (sym_ERR_unexpected_super_in_path, 2372), (sym_ERR_fb_variables_after_method, 1623),
     (sym_ERR_var_access_not_allowed, 3160), (sym_ERR_var_config_not_allowed, 3160),
     (sym_ERR_var_global_not_allowed, 3160), (sym_ERR_method_decl_in_body, 3150),
     (sym_extern_pragma, 7490), (sym_wasm_pragma, 3150), (sym_warn_pragma, 7490),
     (sym_allow_pragma, 3140), (sym_test_pragma, 7490), (sym_once_pragma, 7490),
     (sym_must_call_pragma, 7490), (sym_export_pragma, 7490), (sym_pou_pragma, 7194),
     (sym_direct_variable, 7675), (sym_deref_expression, 2373), (sym_variable, 7599),
     (sym_var_access, 2373), (sym_in_out_decls, 3160), (sym_var_decls, 3160),
     (sym_retain_var_decls, 3160), (sym_temp_var_decls, 3160), (sym_external_var_decls, 3160),
     (sym_global_var_decls, 2947), (sym_loc_partly_var_decl, 3160), (sym__fb_variables, 2343),
     (sym_fb_input_decls, 3160), (sym_fb_output_decls, 3160), (sym_no_retain_var_decls, 3160),
     (sym_fb_body, 9799), (sym_method_decl, 2549), (sym_prog_access_decls, 3043), (sym_SFC, 7970),
     (sym_SFC_network, 7612), (sym_initial_step, 7439), (sym_config_init, 3047),
     (sym_variable_access, 7530), (sym_func_call, 2961), (sym_stmt_list, 7970), (sym__stmt, 2024),
     (sym_assign, 3150), (sym_if_stmt, 3150), (sym_case_stmt, 3150), (sym_for_stmt, 3150),
     (sym_while_stmt, 3150), (sym_repeat_stmt, 3150), (sym_raise_stmt, 3150), (sym_try_stmt, 3150),
     (sym_ERR_clause_outside_try, 3150), (sym_begin_path_expression, 2943), (sym_invocation, 2934),
     (sym_any_invocation, 2935), (sym_this_invocation, 2641), (sym_super_invocation, 2641),
     (sym_super_body_invocation, 2935), (sym_path_expression, 2627), (sym_field_expression, 2373),
     (sym_index_expression, 2373), (sym_ladder_diagram, 7970), (sym_fb_diagram, 7970),
     (aux_sym_ERR_fb_variables_after_method_repeat1, 2343), (aux_sym_func_decl_repeat1, 7194),
     (aux_sym_fb_decl_repeat3, 2549), (aux_sym_SFC_repeat1, 7612),
     (aux_sym_stmt_list_repeat1, 2024), (aux_sym_ladder_diagram_repeat1, 8009),
     (aux_sym_fb_diagram_repeat1, 8013), (sym_identifier, 298),
     (aux_sym_ERR_unexpected_this_in_path_token1, 304),
     (aux_sym_ERR_unexpected_super_in_path_token1, 306), (sym_line_comment, 3),
     (anon_sym_LBRACE, 308), (aux_sym_test_pragma_token1, 9), (aux_sym_once_pragma_token1, 11),
     (aux_sym_must_call_pragma_token1, 13), (aux_sym_export_pragma_token1, 15),
     (anon_sym_SEMI, 310), (anon_sym_PERCENT, 312), (aux_sym_input_decls_token1, 314),
     (aux_sym_output_decls_token1, 316), (aux_sym_in_out_decls_token1, 318),
     (aux_sym_var_decls_token1, 320), (aux_sym_temp_var_decls_token1, 322),
     (aux_sym_external_var_decls_token1, 324), (aux_sym_global_var_decls_token1, 326),
     (aux_sym_fb_decl_token4, 1666), (aux_sym_method_decl_token1, 330),
     (aux_sym_prog_access_decls_token1, 332), (aux_sym_initial_step_token1, 334),
     (aux_sym_config_init_token1, 336), (aux_sym__stmt_token1, 340), (aux_sym__stmt_token2, 340),
     (aux_sym__stmt_token3, 340), (aux_sym_if_stmt_token1, 342), (aux_sym_case_stmt_token1, 344),
     (aux_sym_for_stmt_token1, 346), (aux_sym_while_stmt_token1, 348),
     (aux_sym_repeat_stmt_token1, 350), (aux_sym_raise_stmt_token1, 352),
     (aux_sym_try_stmt_token1, 354), (aux_sym_try_stmt_token2, 356),
     (aux_sym_catch_clause_token1, 356), (aux_sym_finally_clause_token1, 356), (sym_ld_rung, 358),
     (sym_fbd_network, 360), (sym_c_style_comment, 3), (sym_pascal_style_comment, 3),
     (sym_pragma, 3)]"

lemma ts_parse_row_668_scan: "row_scan tokens_63_2 0 ts_parse_row_668 = Some (Suc (Suc (Suc (Suc 0))))"
  unfolding ts_parse_row_668_def by simp

text \<open>Lines 130806 to 130918.\<close>

definition ts_parse_row_669 :: parse_row where
  "ts_parse_row_669 =
    [(sym_ERR_assign_func_call, 7530), (sym_ERR_unexpected_this_in_path, 2372),
     (sym_ERR_unexpected_super_in_path, 2372), (sym_ERR_fb_variables_after_method, 1624),
     (sym_ERR_var_access_not_allowed, 3160), (sym_ERR_var_config_not_allowed, 3160),
     (sym_ERR_var_global_not_allowed, 3160), (sym_ERR_method_decl_in_body, 3150),
     (sym_extern_pragma, 7490), (sym_wasm_pragma, 3150), (sym_warn_pragma, 7490),
     (sym_allow_pragma, 3140), (sym_test_pragma, 7490), (sym_once_pragma, 7490),
     (sym_must_call_pragma, 7490), (sym_export_pragma, 7490), (sym_pou_pragma, 7194),
     (sym_direct_variable, 7675), (sym_deref_expression, 2373), (sym_variable, 7599),
     (sym_var_access, 2373), (sym_in_out_decls, 3160), (sym_var_decls, 3160),
     (sym_retain_var_decls, 3160), (sym_temp_var_decls, 3160), (sym_external_var_decls, 3160),
     (sym_global_var_decls, 2947), (sym_loc_partly_var_decl, 3160), (sym__fb_variables, 2343),
     (sym_fb_input_decls, 3160), (sym_fb_output_decls, 3160), (sym_no_retain_var_decls, 3160),
     (sym_fb_body, 9827), (sym_method_decl, 2549), (sym_prog_access_decls, 3043), (sym_SFC, 7970),
     (sym_SFC_network, 7612), (sym_initial_step, 7439), (sym_config_init, 3047),
     (sym_variable_access, 7530), (sym_func_call, 2961), (sym_stmt_list, 7970), (sym__stmt, 2024),
     (sym_assign, 3150), (sym_if_stmt, 3150), (sym_case_stmt, 3150), (sym_for_stmt, 3150),
     (sym_while_stmt, 3150), (sym_repeat_stmt, 3150), (sym_raise_stmt, 3150), (sym_try_stmt, 3150),
     (sym_ERR_clause_outside_try, 3150), (sym_begin_path_expression, 2943), (sym_invocation, 2934),
     (sym_any_invocation, 2935), (sym_this_invocation, 2641), (sym_super_invocation, 2641),
     (sym_super_body_invocation, 2935), (sym_path_expression, 2627), (sym_field_expression, 2373),
     (sym_index_expression, 2373), (sym_ladder_diagram, 7970), (sym_fb_diagram, 7970),
     (aux_sym_ERR_fb_variables_after_method_repeat1, 2343), (aux_sym_func_decl_repeat1, 7194),
     (aux_sym_fb_decl_repeat3, 2549), (aux_sym_SFC_repeat1, 7612),
     (aux_sym_stmt_list_repeat1, 2024), (aux_sym_ladder_diagram_repeat1, 8009),
     (aux_sym_fb_diagram_repeat1, 8013), (sym_identifier, 298),
     (aux_sym_ERR_unexpected_this_in_path_token1, 304),
     (aux_sym_ERR_unexpected_super_in_path_token1, 306), (sym_line_comment, 3),
     (anon_sym_LBRACE, 308), (aux_sym_test_pragma_token1, 9), (aux_sym_once_pragma_token1, 11),
     (aux_sym_must_call_pragma_token1, 13), (aux_sym_export_pragma_token1, 15),
     (anon_sym_SEMI, 310), (anon_sym_PERCENT, 312), (aux_sym_input_decls_token1, 314),
     (aux_sym_output_decls_token1, 316), (aux_sym_in_out_decls_token1, 318),
     (aux_sym_var_decls_token1, 320), (aux_sym_temp_var_decls_token1, 322),
     (aux_sym_external_var_decls_token1, 324), (aux_sym_global_var_decls_token1, 326),
     (aux_sym_fb_decl_token4, 1668), (aux_sym_method_decl_token1, 330),
     (aux_sym_prog_access_decls_token1, 332), (aux_sym_initial_step_token1, 334),
     (aux_sym_config_init_token1, 336), (aux_sym__stmt_token1, 340), (aux_sym__stmt_token2, 340),
     (aux_sym__stmt_token3, 340), (aux_sym_if_stmt_token1, 342), (aux_sym_case_stmt_token1, 344),
     (aux_sym_for_stmt_token1, 346), (aux_sym_while_stmt_token1, 348),
     (aux_sym_repeat_stmt_token1, 350), (aux_sym_raise_stmt_token1, 352),
     (aux_sym_try_stmt_token1, 354), (aux_sym_try_stmt_token2, 356),
     (aux_sym_catch_clause_token1, 356), (aux_sym_finally_clause_token1, 356), (sym_ld_rung, 358),
     (sym_fbd_network, 360), (sym_c_style_comment, 3), (sym_pascal_style_comment, 3),
     (sym_pragma, 3)]"

lemma ts_parse_row_669_scan: "row_scan tokens_63_2 0 ts_parse_row_669 = Some (Suc (Suc (Suc (Suc 0))))"
  unfolding ts_parse_row_669_def by simp

text \<open>Lines 130919 to 131031.\<close>

definition ts_parse_row_670 :: parse_row where
  "ts_parse_row_670 =
    [(sym_ERR_assign_func_call, 7530), (sym_ERR_unexpected_this_in_path, 2372),
     (sym_ERR_unexpected_super_in_path, 2372), (sym_ERR_fb_variables_after_method, 1773),
     (sym_ERR_var_access_not_allowed, 3160), (sym_ERR_var_config_not_allowed, 3160),
     (sym_ERR_var_global_not_allowed, 3160), (sym_ERR_method_decl_in_body, 3150),
     (sym_extern_pragma, 7490), (sym_wasm_pragma, 3150), (sym_warn_pragma, 7490),
     (sym_allow_pragma, 3140), (sym_test_pragma, 7490), (sym_once_pragma, 7490),
     (sym_must_call_pragma, 7490), (sym_export_pragma, 7490), (sym_pou_pragma, 7194),
     (sym_direct_variable, 7675), (sym_deref_expression, 2373), (sym_variable, 7599),
     (sym_var_access, 2373), (sym_in_out_decls, 3160), (sym_var_decls, 3160),
     (sym_retain_var_decls, 3160), (sym_temp_var_decls, 3160), (sym_external_var_decls, 3160),
     (sym_global_var_decls, 2947), (sym_loc_partly_var_decl, 3160), (sym__fb_variables, 2347),
     (sym_fb_input_decls, 3160), (sym_fb_output_decls, 3160), (sym_no_retain_var_decls, 3160),
     (sym_fb_body, 9373), (sym_method_decl, 382), (sym_prog_access_decls, 3043), (sym_SFC, 7970),
     (sym_SFC_network, 7612), (sym_initial_step, 7439), (sym_config_init, 3047),
     (sym_variable_access, 7530), (sym_func_call, 2961), (sym_stmt_list, 7970), (sym__stmt, 2024),
     (sym_assign, 3150), (sym_if_stmt, 3150), (sym_case_stmt, 3150), (sym_for_stmt, 3150),
     (sym_while_stmt, 3150), (sym_repeat_stmt, 3150), (sym_raise_stmt, 3150), (sym_try_stmt, 3150),
     (sym_ERR_clause_outside_try, 3150), (sym_begin_path_expression, 2943), (sym_invocation, 2934),
     (sym_any_invocation, 2935), (sym_this_invocation, 2641), (sym_super_invocation, 2641),
     (sym_super_body_invocation, 2935), (sym_path_expression, 2627), (sym_field_expression, 2373),
     (sym_index_expression, 2373), (sym_ladder_diagram, 7970), (sym_fb_diagram, 7970),
     (aux_sym_ERR_fb_variables_after_method_repeat1, 2347), (aux_sym_func_decl_repeat1, 7194),
     (aux_sym_fb_decl_repeat3, 382), (aux_sym_SFC_repeat1, 7612), (aux_sym_stmt_list_repeat1, 2024),
     (aux_sym_ladder_diagram_repeat1, 8009), (aux_sym_fb_diagram_repeat1, 8013),
     (sym_identifier, 298), (aux_sym_ERR_unexpected_this_in_path_token1, 304),
     (aux_sym_ERR_unexpected_super_in_path_token1, 306), (sym_line_comment, 3),
     (anon_sym_LBRACE, 308), (aux_sym_test_pragma_token1, 9), (aux_sym_once_pragma_token1, 11),
     (aux_sym_must_call_pragma_token1, 13), (aux_sym_export_pragma_token1, 15),
     (anon_sym_SEMI, 310), (anon_sym_PERCENT, 312), (aux_sym_input_decls_token1, 314),
     (aux_sym_output_decls_token1, 316), (aux_sym_in_out_decls_token1, 318),
     (aux_sym_var_decls_token1, 320), (aux_sym_temp_var_decls_token1, 322),
     (aux_sym_external_var_decls_token1, 324), (aux_sym_global_var_decls_token1, 326),
     (aux_sym_fb_decl_token4, 1670), (aux_sym_method_decl_token1, 330),
     (aux_sym_prog_access_decls_token1, 332), (aux_sym_initial_step_token1, 334),
     (aux_sym_config_init_token1, 336), (aux_sym__stmt_token1, 340), (aux_sym__stmt_token2, 340),
     (aux_sym__stmt_token3, 340), (aux_sym_if_stmt_token1, 342), (aux_sym_case_stmt_token1, 344),
     (aux_sym_for_stmt_token1, 346), (aux_sym_while_stmt_token1, 348),
     (aux_sym_repeat_stmt_token1, 350), (aux_sym_raise_stmt_token1, 352),
     (aux_sym_try_stmt_token1, 354), (aux_sym_try_stmt_token2, 356),
     (aux_sym_catch_clause_token1, 356), (aux_sym_finally_clause_token1, 356), (sym_ld_rung, 358),
     (sym_fbd_network, 360), (sym_c_style_comment, 3), (sym_pascal_style_comment, 3),
     (sym_pragma, 3)]"

lemma ts_parse_row_670_scan: "row_scan tokens_63_2 0 ts_parse_row_670 = Some (Suc (Suc (Suc (Suc 0))))"
  unfolding ts_parse_row_670_def by simp

text \<open>Lines 131032 to 131144.\<close>

definition ts_parse_row_671 :: parse_row where
  "ts_parse_row_671 =
    [(sym_ERR_assign_func_call, 7530), (sym_ERR_unexpected_this_in_path, 2372),
     (sym_ERR_unexpected_super_in_path, 2372), (sym_ERR_fb_variables_after_method, 1627),
     (sym_ERR_var_access_not_allowed, 3160), (sym_ERR_var_config_not_allowed, 3160),
     (sym_ERR_var_global_not_allowed, 3160), (sym_ERR_method_decl_in_body, 3150),
     (sym_extern_pragma, 7490), (sym_wasm_pragma, 3150), (sym_warn_pragma, 7490),
     (sym_allow_pragma, 3140), (sym_test_pragma, 7490), (sym_once_pragma, 7490),
     (sym_must_call_pragma, 7490), (sym_export_pragma, 7490), (sym_pou_pragma, 7194),
     (sym_direct_variable, 7675), (sym_deref_expression, 2373), (sym_variable, 7599),
     (sym_var_access, 2373), (sym_in_out_decls, 3160), (sym_var_decls, 3160),
     (sym_retain_var_decls, 3160), (sym_temp_var_decls, 3160), (sym_external_var_decls, 3160),
     (sym_global_var_decls, 2947), (sym_loc_partly_var_decl, 3160), (sym__fb_variables, 2343),
     (sym_fb_input_decls, 3160), (sym_fb_output_decls, 3160), (sym_no_retain_var_decls, 3160),
     (sym_fb_body, 10456), (sym_method_decl, 2549), (sym_prog_access_decls, 3043), (sym_SFC, 7970),
     (sym_SFC_network, 7612), (sym_initial_step, 7439), (sym_config_init, 3047),
     (sym_variable_access, 7530), (sym_func_call, 2961), (sym_stmt_list, 7970), (sym__stmt, 2024),
     (sym_assign, 3150), (sym_if_stmt, 3150), (sym_case_stmt, 3150), (sym_for_stmt, 3150),
     (sym_while_stmt, 3150), (sym_repeat_stmt, 3150), (sym_raise_stmt, 3150), (sym_try_stmt, 3150),
     (sym_ERR_clause_outside_try, 3150), (sym_begin_path_expression, 2943), (sym_invocation, 2934),
     (sym_any_invocation, 2935), (sym_this_invocation, 2641), (sym_super_invocation, 2641),
     (sym_super_body_invocation, 2935), (sym_path_expression, 2627), (sym_field_expression, 2373),
     (sym_index_expression, 2373), (sym_ladder_diagram, 7970), (sym_fb_diagram, 7970),
     (aux_sym_ERR_fb_variables_after_method_repeat1, 2343), (aux_sym_func_decl_repeat1, 7194),
     (aux_sym_fb_decl_repeat3, 2549), (aux_sym_SFC_repeat1, 7612),
     (aux_sym_stmt_list_repeat1, 2024), (aux_sym_ladder_diagram_repeat1, 8009),
     (aux_sym_fb_diagram_repeat1, 8013), (sym_identifier, 298),
     (aux_sym_ERR_unexpected_this_in_path_token1, 304),
     (aux_sym_ERR_unexpected_super_in_path_token1, 306), (sym_line_comment, 3),
     (anon_sym_LBRACE, 308), (aux_sym_test_pragma_token1, 9), (aux_sym_once_pragma_token1, 11),
     (aux_sym_must_call_pragma_token1, 13), (aux_sym_export_pragma_token1, 15),
     (anon_sym_SEMI, 310), (anon_sym_PERCENT, 312), (aux_sym_input_decls_token1, 314),
     (aux_sym_output_decls_token1, 316), (aux_sym_in_out_decls_token1, 318),
     (aux_sym_var_decls_token1, 320), (aux_sym_temp_var_decls_token1, 322),
     (aux_sym_external_var_decls_token1, 324), (aux_sym_global_var_decls_token1, 326),
     (aux_sym_fb_decl_token4, 1672), (aux_sym_method_decl_token1, 330),
     (aux_sym_prog_access_decls_token1, 332), (aux_sym_initial_step_token1, 334),
     (aux_sym_config_init_token1, 336), (aux_sym__stmt_token1, 340), (aux_sym__stmt_token2, 340),
     (aux_sym__stmt_token3, 340), (aux_sym_if_stmt_token1, 342), (aux_sym_case_stmt_token1, 344),
     (aux_sym_for_stmt_token1, 346), (aux_sym_while_stmt_token1, 348),
     (aux_sym_repeat_stmt_token1, 350), (aux_sym_raise_stmt_token1, 352),
     (aux_sym_try_stmt_token1, 354), (aux_sym_try_stmt_token2, 356),
     (aux_sym_catch_clause_token1, 356), (aux_sym_finally_clause_token1, 356), (sym_ld_rung, 358),
     (sym_fbd_network, 360), (sym_c_style_comment, 3), (sym_pascal_style_comment, 3),
     (sym_pragma, 3)]"

lemma ts_parse_row_671_scan: "row_scan tokens_63_2 0 ts_parse_row_671 = Some (Suc (Suc (Suc (Suc 0))))"
  unfolding ts_parse_row_671_def by simp

text \<open>Lines 131145 to 131257.\<close>

definition ts_parse_row_672 :: parse_row where
  "ts_parse_row_672 =
    [(sym_ERR_assign_func_call, 7530), (sym_ERR_unexpected_this_in_path, 2372),
     (sym_ERR_unexpected_super_in_path, 2372), (sym_ERR_fb_variables_after_method, 1628),
     (sym_ERR_var_access_not_allowed, 3160), (sym_ERR_var_config_not_allowed, 3160),
     (sym_ERR_var_global_not_allowed, 3160), (sym_ERR_method_decl_in_body, 3150),
     (sym_extern_pragma, 7490), (sym_wasm_pragma, 3150), (sym_warn_pragma, 7490),
     (sym_allow_pragma, 3140), (sym_test_pragma, 7490), (sym_once_pragma, 7490),
     (sym_must_call_pragma, 7490), (sym_export_pragma, 7490), (sym_pou_pragma, 7194),
     (sym_direct_variable, 7675), (sym_deref_expression, 2373), (sym_variable, 7599),
     (sym_var_access, 2373), (sym_in_out_decls, 3160), (sym_var_decls, 3160),
     (sym_retain_var_decls, 3160), (sym_temp_var_decls, 3160), (sym_external_var_decls, 3160),
     (sym_global_var_decls, 2947), (sym_loc_partly_var_decl, 3160), (sym__fb_variables, 2343),
     (sym_fb_input_decls, 3160), (sym_fb_output_decls, 3160), (sym_no_retain_var_decls, 3160),
     (sym_fb_body, 10485), (sym_method_decl, 2549), (sym_prog_access_decls, 3043), (sym_SFC, 7970),
     (sym_SFC_network, 7612), (sym_initial_step, 7439), (sym_config_init, 3047),
     (sym_variable_access, 7530), (sym_func_call, 2961), (sym_stmt_list, 7970), (sym__stmt, 2024),
     (sym_assign, 3150), (sym_if_stmt, 3150), (sym_case_stmt, 3150), (sym_for_stmt, 3150),
     (sym_while_stmt, 3150), (sym_repeat_stmt, 3150), (sym_raise_stmt, 3150), (sym_try_stmt, 3150),
     (sym_ERR_clause_outside_try, 3150), (sym_begin_path_expression, 2943), (sym_invocation, 2934),
     (sym_any_invocation, 2935), (sym_this_invocation, 2641), (sym_super_invocation, 2641),
     (sym_super_body_invocation, 2935), (sym_path_expression, 2627), (sym_field_expression, 2373),
     (sym_index_expression, 2373), (sym_ladder_diagram, 7970), (sym_fb_diagram, 7970),
     (aux_sym_ERR_fb_variables_after_method_repeat1, 2343), (aux_sym_func_decl_repeat1, 7194),
     (aux_sym_fb_decl_repeat3, 2549), (aux_sym_SFC_repeat1, 7612),
     (aux_sym_stmt_list_repeat1, 2024), (aux_sym_ladder_diagram_repeat1, 8009),
     (aux_sym_fb_diagram_repeat1, 8013), (sym_identifier, 298),
     (aux_sym_ERR_unexpected_this_in_path_token1, 304),
     (aux_sym_ERR_unexpected_super_in_path_token1, 306), (sym_line_comment, 3),
     (anon_sym_LBRACE, 308), (aux_sym_test_pragma_token1, 9), (aux_sym_once_pragma_token1, 11),
     (aux_sym_must_call_pragma_token1, 13), (aux_sym_export_pragma_token1, 15),
     (anon_sym_SEMI, 310), (anon_sym_PERCENT, 312), (aux_sym_input_decls_token1, 314),
     (aux_sym_output_decls_token1, 316), (aux_sym_in_out_decls_token1, 318),
     (aux_sym_var_decls_token1, 320), (aux_sym_temp_var_decls_token1, 322),
     (aux_sym_external_var_decls_token1, 324), (aux_sym_global_var_decls_token1, 326),
     (aux_sym_fb_decl_token4, 1674), (aux_sym_method_decl_token1, 330),
     (aux_sym_prog_access_decls_token1, 332), (aux_sym_initial_step_token1, 334),
     (aux_sym_config_init_token1, 336), (aux_sym__stmt_token1, 340), (aux_sym__stmt_token2, 340),
     (aux_sym__stmt_token3, 340), (aux_sym_if_stmt_token1, 342), (aux_sym_case_stmt_token1, 344),
     (aux_sym_for_stmt_token1, 346), (aux_sym_while_stmt_token1, 348),
     (aux_sym_repeat_stmt_token1, 350), (aux_sym_raise_stmt_token1, 352),
     (aux_sym_try_stmt_token1, 354), (aux_sym_try_stmt_token2, 356),
     (aux_sym_catch_clause_token1, 356), (aux_sym_finally_clause_token1, 356), (sym_ld_rung, 358),
     (sym_fbd_network, 360), (sym_c_style_comment, 3), (sym_pascal_style_comment, 3),
     (sym_pragma, 3)]"

lemma ts_parse_row_672_scan: "row_scan tokens_63_2 0 ts_parse_row_672 = Some (Suc (Suc (Suc (Suc 0))))"
  unfolding ts_parse_row_672_def by simp

text \<open>Lines 131258 to 131370.\<close>

definition ts_parse_row_673 :: parse_row where
  "ts_parse_row_673 =
    [(sym_ERR_assign_func_call, 7530), (sym_ERR_unexpected_this_in_path, 2372),
     (sym_ERR_unexpected_super_in_path, 2372), (sym_ERR_fb_variables_after_method, 1629),
     (sym_ERR_var_access_not_allowed, 3160), (sym_ERR_var_config_not_allowed, 3160),
     (sym_ERR_var_global_not_allowed, 3160), (sym_ERR_method_decl_in_body, 3150),
     (sym_extern_pragma, 7490), (sym_wasm_pragma, 3150), (sym_warn_pragma, 7490),
     (sym_allow_pragma, 3140), (sym_test_pragma, 7490), (sym_once_pragma, 7490),
     (sym_must_call_pragma, 7490), (sym_export_pragma, 7490), (sym_pou_pragma, 7194),
     (sym_direct_variable, 7675), (sym_deref_expression, 2373), (sym_variable, 7599),
     (sym_var_access, 2373), (sym_in_out_decls, 3160), (sym_var_decls, 3160),
     (sym_retain_var_decls, 3160), (sym_temp_var_decls, 3160), (sym_external_var_decls, 3160),
     (sym_global_var_decls, 2947), (sym_loc_partly_var_decl, 3160), (sym__fb_variables, 2347),
     (sym_fb_input_decls, 3160), (sym_fb_output_decls, 3160), (sym_no_retain_var_decls, 3160),
     (sym_fb_body, 10492), (sym_method_decl, 762), (sym_prog_access_decls, 3043), (sym_SFC, 7970),
     (sym_SFC_network, 7612), (sym_initial_step, 7439), (sym_config_init, 3047),
     (sym_variable_access, 7530), (sym_func_call, 2961), (sym_stmt_list, 7970), (sym__stmt, 2024),
     (sym_assign, 3150), (sym_if_stmt, 3150), (sym_case_stmt, 3150), (sym_for_stmt, 3150),
     (sym_while_stmt, 3150), (sym_repeat_stmt, 3150), (sym_raise_stmt, 3150), (sym_try_stmt, 3150),
     (sym_ERR_clause_outside_try, 3150), (sym_begin_path_expression, 2943), (sym_invocation, 2934),
     (sym_any_invocation, 2935), (sym_this_invocation, 2641), (sym_super_invocation, 2641),
     (sym_super_body_invocation, 2935), (sym_path_expression, 2627), (sym_field_expression, 2373),
     (sym_index_expression, 2373), (sym_ladder_diagram, 7970), (sym_fb_diagram, 7970),
     (aux_sym_ERR_fb_variables_after_method_repeat1, 2347), (aux_sym_func_decl_repeat1, 7194),
     (aux_sym_fb_decl_repeat3, 762), (aux_sym_SFC_repeat1, 7612), (aux_sym_stmt_list_repeat1, 2024),
     (aux_sym_ladder_diagram_repeat1, 8009), (aux_sym_fb_diagram_repeat1, 8013),
     (sym_identifier, 298), (aux_sym_ERR_unexpected_this_in_path_token1, 304),
     (aux_sym_ERR_unexpected_super_in_path_token1, 306), (sym_line_comment, 3),
     (anon_sym_LBRACE, 308), (aux_sym_test_pragma_token1, 9), (aux_sym_once_pragma_token1, 11),
     (aux_sym_must_call_pragma_token1, 13), (aux_sym_export_pragma_token1, 15),
     (anon_sym_SEMI, 310), (anon_sym_PERCENT, 312), (aux_sym_input_decls_token1, 314),
     (aux_sym_output_decls_token1, 316), (aux_sym_in_out_decls_token1, 318),
     (aux_sym_var_decls_token1, 320), (aux_sym_temp_var_decls_token1, 322),
     (aux_sym_external_var_decls_token1, 324), (aux_sym_global_var_decls_token1, 326),
     (aux_sym_fb_decl_token4, 1676), (aux_sym_method_decl_token1, 330),
     (aux_sym_prog_access_decls_token1, 332), (aux_sym_initial_step_token1, 334),
     (aux_sym_config_init_token1, 336), (aux_sym__stmt_token1, 340), (aux_sym__stmt_token2, 340),
     (aux_sym__stmt_token3, 340), (aux_sym_if_stmt_token1, 342), (aux_sym_case_stmt_token1, 344),
     (aux_sym_for_stmt_token1, 346), (aux_sym_while_stmt_token1, 348),
     (aux_sym_repeat_stmt_token1, 350), (aux_sym_raise_stmt_token1, 352),
     (aux_sym_try_stmt_token1, 354), (aux_sym_try_stmt_token2, 356),
     (aux_sym_catch_clause_token1, 356), (aux_sym_finally_clause_token1, 356), (sym_ld_rung, 358),
     (sym_fbd_network, 360), (sym_c_style_comment, 3), (sym_pascal_style_comment, 3),
     (sym_pragma, 3)]"

lemma ts_parse_row_673_scan: "row_scan tokens_63_2 0 ts_parse_row_673 = Some (Suc (Suc (Suc (Suc 0))))"
  unfolding ts_parse_row_673_def by simp

text \<open>Lines 131371 to 131483.\<close>

definition ts_parse_row_674 :: parse_row where
  "ts_parse_row_674 =
    [(sym_ERR_assign_func_call, 7530), (sym_ERR_unexpected_this_in_path, 2372),
     (sym_ERR_unexpected_super_in_path, 2372), (sym_ERR_fb_variables_after_method, 1631),
     (sym_ERR_var_access_not_allowed, 3160), (sym_ERR_var_config_not_allowed, 3160),
     (sym_ERR_var_global_not_allowed, 3160), (sym_ERR_method_decl_in_body, 3150),
     (sym_extern_pragma, 7490), (sym_wasm_pragma, 3150), (sym_warn_pragma, 7490),
     (sym_allow_pragma, 3140), (sym_test_pragma, 7490), (sym_once_pragma, 7490),
     (sym_must_call_pragma, 7490), (sym_export_pragma, 7490), (sym_pou_pragma, 7194),
     (sym_direct_variable, 7675), (sym_deref_expression, 2373), (sym_variable, 7599),
     (sym_var_access, 2373), (sym_in_out_decls, 3160), (sym_var_decls, 3160),
     (sym_retain_var_decls, 3160), (sym_temp_var_decls, 3160), (sym_external_var_decls, 3160),
     (sym_global_var_decls, 2947), (sym_loc_partly_var_decl, 3160), (sym__fb_variables, 2343),
     (sym_fb_input_decls, 3160), (sym_fb_output_decls, 3160), (sym_no_retain_var_decls, 3160),
     (sym_fb_body, 10496), (sym_method_decl, 2549), (sym_prog_access_decls, 3043), (sym_SFC, 7970),
     (sym_SFC_network, 7612), (sym_initial_step, 7439), (sym_config_init, 3047),
     (sym_variable_access, 7530), (sym_func_call, 2961), (sym_stmt_list, 7970), (sym__stmt, 2024),
     (sym_assign, 3150), (sym_if_stmt, 3150), (sym_case_stmt, 3150), (sym_for_stmt, 3150),
     (sym_while_stmt, 3150), (sym_repeat_stmt, 3150), (sym_raise_stmt, 3150), (sym_try_stmt, 3150),
     (sym_ERR_clause_outside_try, 3150), (sym_begin_path_expression, 2943), (sym_invocation, 2934),
     (sym_any_invocation, 2935), (sym_this_invocation, 2641), (sym_super_invocation, 2641),
     (sym_super_body_invocation, 2935), (sym_path_expression, 2627), (sym_field_expression, 2373),
     (sym_index_expression, 2373), (sym_ladder_diagram, 7970), (sym_fb_diagram, 7970),
     (aux_sym_ERR_fb_variables_after_method_repeat1, 2343), (aux_sym_func_decl_repeat1, 7194),
     (aux_sym_fb_decl_repeat3, 2549), (aux_sym_SFC_repeat1, 7612),
     (aux_sym_stmt_list_repeat1, 2024), (aux_sym_ladder_diagram_repeat1, 8009),
     (aux_sym_fb_diagram_repeat1, 8013), (sym_identifier, 298),
     (aux_sym_ERR_unexpected_this_in_path_token1, 304),
     (aux_sym_ERR_unexpected_super_in_path_token1, 306), (sym_line_comment, 3),
     (anon_sym_LBRACE, 308), (aux_sym_test_pragma_token1, 9), (aux_sym_once_pragma_token1, 11),
     (aux_sym_must_call_pragma_token1, 13), (aux_sym_export_pragma_token1, 15),
     (anon_sym_SEMI, 310), (anon_sym_PERCENT, 312), (aux_sym_input_decls_token1, 314),
     (aux_sym_output_decls_token1, 316), (aux_sym_in_out_decls_token1, 318),
     (aux_sym_var_decls_token1, 320), (aux_sym_temp_var_decls_token1, 322),
     (aux_sym_external_var_decls_token1, 324), (aux_sym_global_var_decls_token1, 326),
     (aux_sym_fb_decl_token4, 1678), (aux_sym_method_decl_token1, 330),
     (aux_sym_prog_access_decls_token1, 332), (aux_sym_initial_step_token1, 334),
     (aux_sym_config_init_token1, 336), (aux_sym__stmt_token1, 340), (aux_sym__stmt_token2, 340),
     (aux_sym__stmt_token3, 340), (aux_sym_if_stmt_token1, 342), (aux_sym_case_stmt_token1, 344),
     (aux_sym_for_stmt_token1, 346), (aux_sym_while_stmt_token1, 348),
     (aux_sym_repeat_stmt_token1, 350), (aux_sym_raise_stmt_token1, 352),
     (aux_sym_try_stmt_token1, 354), (aux_sym_try_stmt_token2, 356),
     (aux_sym_catch_clause_token1, 356), (aux_sym_finally_clause_token1, 356), (sym_ld_rung, 358),
     (sym_fbd_network, 360), (sym_c_style_comment, 3), (sym_pascal_style_comment, 3),
     (sym_pragma, 3)]"

lemma ts_parse_row_674_scan: "row_scan tokens_63_2 0 ts_parse_row_674 = Some (Suc (Suc (Suc (Suc 0))))"
  unfolding ts_parse_row_674_def by simp

text \<open>Lines 131484 to 131596.\<close>

definition ts_parse_row_675 :: parse_row where
  "ts_parse_row_675 =
    [(sym_ERR_assign_func_call, 7530), (sym_ERR_unexpected_this_in_path, 2372),
     (sym_ERR_unexpected_super_in_path, 2372), (sym_ERR_fb_variables_after_method, 1632),
     (sym_ERR_var_access_not_allowed, 3160), (sym_ERR_var_config_not_allowed, 3160),
     (sym_ERR_var_global_not_allowed, 3160), (sym_ERR_method_decl_in_body, 3150),
     (sym_extern_pragma, 7490), (sym_wasm_pragma, 3150), (sym_warn_pragma, 7490),
     (sym_allow_pragma, 3140), (sym_test_pragma, 7490), (sym_once_pragma, 7490),
     (sym_must_call_pragma, 7490), (sym_export_pragma, 7490), (sym_pou_pragma, 7194),
     (sym_direct_variable, 7675), (sym_deref_expression, 2373), (sym_variable, 7599),
     (sym_var_access, 2373), (sym_in_out_decls, 3160), (sym_var_decls, 3160),
     (sym_retain_var_decls, 3160), (sym_temp_var_decls, 3160), (sym_external_var_decls, 3160),
     (sym_global_var_decls, 2947), (sym_loc_partly_var_decl, 3160), (sym__fb_variables, 2347),
     (sym_fb_input_decls, 3160), (sym_fb_output_decls, 3160), (sym_no_retain_var_decls, 3160),
     (sym_fb_body, 10516), (sym_method_decl, 763), (sym_prog_access_decls, 3043), (sym_SFC, 7970),
     (sym_SFC_network, 7612), (sym_initial_step, 7439), (sym_config_init, 3047),
     (sym_variable_access, 7530), (sym_func_call, 2961), (sym_stmt_list, 7970), (sym__stmt, 2024),
     (sym_assign, 3150), (sym_if_stmt, 3150), (sym_case_stmt, 3150), (sym_for_stmt, 3150),
     (sym_while_stmt, 3150), (sym_repeat_stmt, 3150), (sym_raise_stmt, 3150), (sym_try_stmt, 3150),
     (sym_ERR_clause_outside_try, 3150), (sym_begin_path_expression, 2943), (sym_invocation, 2934),
     (sym_any_invocation, 2935), (sym_this_invocation, 2641), (sym_super_invocation, 2641),
     (sym_super_body_invocation, 2935), (sym_path_expression, 2627), (sym_field_expression, 2373),
     (sym_index_expression, 2373), (sym_ladder_diagram, 7970), (sym_fb_diagram, 7970),
     (aux_sym_ERR_fb_variables_after_method_repeat1, 2347), (aux_sym_func_decl_repeat1, 7194),
     (aux_sym_fb_decl_repeat3, 763), (aux_sym_SFC_repeat1, 7612), (aux_sym_stmt_list_repeat1, 2024),
     (aux_sym_ladder_diagram_repeat1, 8009), (aux_sym_fb_diagram_repeat1, 8013),
     (sym_identifier, 298), (aux_sym_ERR_unexpected_this_in_path_token1, 304),
     (aux_sym_ERR_unexpected_super_in_path_token1, 306), (sym_line_comment, 3),
     (anon_sym_LBRACE, 308), (aux_sym_test_pragma_token1, 9), (aux_sym_once_pragma_token1, 11),
     (aux_sym_must_call_pragma_token1, 13), (aux_sym_export_pragma_token1, 15),
     (anon_sym_SEMI, 310), (anon_sym_PERCENT, 312), (aux_sym_input_decls_token1, 314),
     (aux_sym_output_decls_token1, 316), (aux_sym_in_out_decls_token1, 318),
     (aux_sym_var_decls_token1, 320), (aux_sym_temp_var_decls_token1, 322),
     (aux_sym_external_var_decls_token1, 324), (aux_sym_global_var_decls_token1, 326),
     (aux_sym_fb_decl_token4, 1680), (aux_sym_method_decl_token1, 330),
     (aux_sym_prog_access_decls_token1, 332), (aux_sym_initial_step_token1, 334),
     (aux_sym_config_init_token1, 336), (aux_sym__stmt_token1, 340), (aux_sym__stmt_token2, 340),
     (aux_sym__stmt_token3, 340), (aux_sym_if_stmt_token1, 342), (aux_sym_case_stmt_token1, 344),
     (aux_sym_for_stmt_token1, 346), (aux_sym_while_stmt_token1, 348),
     (aux_sym_repeat_stmt_token1, 350), (aux_sym_raise_stmt_token1, 352),
     (aux_sym_try_stmt_token1, 354), (aux_sym_try_stmt_token2, 356),
     (aux_sym_catch_clause_token1, 356), (aux_sym_finally_clause_token1, 356), (sym_ld_rung, 358),
     (sym_fbd_network, 360), (sym_c_style_comment, 3), (sym_pascal_style_comment, 3),
     (sym_pragma, 3)]"

lemma ts_parse_row_675_scan: "row_scan tokens_63_2 0 ts_parse_row_675 = Some (Suc (Suc (Suc (Suc 0))))"
  unfolding ts_parse_row_675_def by simp

text \<open>Lines 131597 to 131709.\<close>

definition ts_parse_row_676 :: parse_row where
  "ts_parse_row_676 =
    [(sym_ERR_assign_func_call, 7530), (sym_ERR_unexpected_this_in_path, 2372),
     (sym_ERR_unexpected_super_in_path, 2372), (sym_ERR_fb_variables_after_method, 1272),
     (sym_ERR_var_access_not_allowed, 3160), (sym_ERR_var_config_not_allowed, 3160),
     (sym_ERR_var_global_not_allowed, 3160), (sym_ERR_method_decl_in_body, 3150),
     (sym_extern_pragma, 7490), (sym_wasm_pragma, 3150), (sym_warn_pragma, 7490),
     (sym_allow_pragma, 3140), (sym_test_pragma, 7490), (sym_once_pragma, 7490),
     (sym_must_call_pragma, 7490), (sym_export_pragma, 7490), (sym_pou_pragma, 7194),
     (sym_direct_variable, 7675), (sym_deref_expression, 2373), (sym_variable, 7599),
     (sym_var_access, 2373), (sym_in_out_decls, 3160), (sym_var_decls, 3160),
     (sym_retain_var_decls, 3160), (sym_temp_var_decls, 3160), (sym_external_var_decls, 3160),
     (sym_global_var_decls, 2947), (sym_loc_partly_var_decl, 3160), (sym__fb_variables, 2343),
     (sym_fb_input_decls, 3160), (sym_fb_output_decls, 3160), (sym_no_retain_var_decls, 3160),
     (sym_fb_body, 9694), (sym_method_decl, 2549), (sym_prog_access_decls, 3043), (sym_SFC, 7970),
     (sym_SFC_network, 7612), (sym_initial_step, 7439), (sym_config_init, 3047),
     (sym_variable_access, 7530), (sym_func_call, 2961), (sym_stmt_list, 7970), (sym__stmt, 2024),
     (sym_assign, 3150), (sym_if_stmt, 3150), (sym_case_stmt, 3150), (sym_for_stmt, 3150),
     (sym_while_stmt, 3150), (sym_repeat_stmt, 3150), (sym_raise_stmt, 3150), (sym_try_stmt, 3150),
     (sym_ERR_clause_outside_try, 3150), (sym_begin_path_expression, 2943), (sym_invocation, 2934),
     (sym_any_invocation, 2935), (sym_this_invocation, 2641), (sym_super_invocation, 2641),
     (sym_super_body_invocation, 2935), (sym_path_expression, 2627), (sym_field_expression, 2373),
     (sym_index_expression, 2373), (sym_ladder_diagram, 7970), (sym_fb_diagram, 7970),
     (aux_sym_ERR_fb_variables_after_method_repeat1, 2343), (aux_sym_func_decl_repeat1, 7194),
     (aux_sym_fb_decl_repeat3, 2549), (aux_sym_SFC_repeat1, 7612),
     (aux_sym_stmt_list_repeat1, 2024), (aux_sym_ladder_diagram_repeat1, 8009),
     (aux_sym_fb_diagram_repeat1, 8013), (sym_identifier, 298),
     (aux_sym_ERR_unexpected_this_in_path_token1, 304),
     (aux_sym_ERR_unexpected_super_in_path_token1, 306), (sym_line_comment, 3),
     (anon_sym_LBRACE, 308), (aux_sym_test_pragma_token1, 9), (aux_sym_once_pragma_token1, 11),
     (aux_sym_must_call_pragma_token1, 13), (aux_sym_export_pragma_token1, 15),
     (anon_sym_SEMI, 310), (anon_sym_PERCENT, 312), (aux_sym_input_decls_token1, 314),
     (aux_sym_output_decls_token1, 316), (aux_sym_in_out_decls_token1, 318),
     (aux_sym_var_decls_token1, 320), (aux_sym_temp_var_decls_token1, 322),
     (aux_sym_external_var_decls_token1, 324), (aux_sym_global_var_decls_token1, 326),
     (aux_sym_fb_decl_token4, 1682), (aux_sym_method_decl_token1, 330),
     (aux_sym_prog_access_decls_token1, 332), (aux_sym_initial_step_token1, 334),
     (aux_sym_config_init_token1, 336), (aux_sym__stmt_token1, 340), (aux_sym__stmt_token2, 340),
     (aux_sym__stmt_token3, 340), (aux_sym_if_stmt_token1, 342), (aux_sym_case_stmt_token1, 344),
     (aux_sym_for_stmt_token1, 346), (aux_sym_while_stmt_token1, 348),
     (aux_sym_repeat_stmt_token1, 350), (aux_sym_raise_stmt_token1, 352),
     (aux_sym_try_stmt_token1, 354), (aux_sym_try_stmt_token2, 356),
     (aux_sym_catch_clause_token1, 356), (aux_sym_finally_clause_token1, 356), (sym_ld_rung, 358),
     (sym_fbd_network, 360), (sym_c_style_comment, 3), (sym_pascal_style_comment, 3),
     (sym_pragma, 3)]"

lemma ts_parse_row_676_scan: "row_scan tokens_63_2 0 ts_parse_row_676 = Some (Suc (Suc (Suc (Suc 0))))"
  unfolding ts_parse_row_676_def by simp

text \<open>Lines 131710 to 131822.\<close>

definition ts_parse_row_677 :: parse_row where
  "ts_parse_row_677 =
    [(sym_ERR_assign_func_call, 7530), (sym_ERR_unexpected_this_in_path, 2372),
     (sym_ERR_unexpected_super_in_path, 2372), (sym_ERR_fb_variables_after_method, 1637),
     (sym_ERR_var_access_not_allowed, 3160), (sym_ERR_var_config_not_allowed, 3160),
     (sym_ERR_var_global_not_allowed, 3160), (sym_ERR_method_decl_in_body, 3150),
     (sym_extern_pragma, 7490), (sym_wasm_pragma, 3150), (sym_warn_pragma, 7490),
     (sym_allow_pragma, 3140), (sym_test_pragma, 7490), (sym_once_pragma, 7490),
     (sym_must_call_pragma, 7490), (sym_export_pragma, 7490), (sym_pou_pragma, 7194),
     (sym_direct_variable, 7675), (sym_deref_expression, 2373), (sym_variable, 7599),
     (sym_var_access, 2373), (sym_in_out_decls, 3160), (sym_var_decls, 3160),
     (sym_retain_var_decls, 3160), (sym_temp_var_decls, 3160), (sym_external_var_decls, 3160),
     (sym_global_var_decls, 2947), (sym_loc_partly_var_decl, 3160), (sym__fb_variables, 2343),
     (sym_fb_input_decls, 3160), (sym_fb_output_decls, 3160), (sym_no_retain_var_decls, 3160),
     (sym_fb_body, 10529), (sym_method_decl, 2549), (sym_prog_access_decls, 3043), (sym_SFC, 7970),
     (sym_SFC_network, 7612), (sym_initial_step, 7439), (sym_config_init, 3047),
     (sym_variable_access, 7530), (sym_func_call, 2961), (sym_stmt_list, 7970), (sym__stmt, 2024),
     (sym_assign, 3150), (sym_if_stmt, 3150), (sym_case_stmt, 3150), (sym_for_stmt, 3150),
     (sym_while_stmt, 3150), (sym_repeat_stmt, 3150), (sym_raise_stmt, 3150), (sym_try_stmt, 3150),
     (sym_ERR_clause_outside_try, 3150), (sym_begin_path_expression, 2943), (sym_invocation, 2934),
     (sym_any_invocation, 2935), (sym_this_invocation, 2641), (sym_super_invocation, 2641),
     (sym_super_body_invocation, 2935), (sym_path_expression, 2627), (sym_field_expression, 2373),
     (sym_index_expression, 2373), (sym_ladder_diagram, 7970), (sym_fb_diagram, 7970),
     (aux_sym_ERR_fb_variables_after_method_repeat1, 2343), (aux_sym_func_decl_repeat1, 7194),
     (aux_sym_fb_decl_repeat3, 2549), (aux_sym_SFC_repeat1, 7612),
     (aux_sym_stmt_list_repeat1, 2024), (aux_sym_ladder_diagram_repeat1, 8009),
     (aux_sym_fb_diagram_repeat1, 8013), (sym_identifier, 298),
     (aux_sym_ERR_unexpected_this_in_path_token1, 304),
     (aux_sym_ERR_unexpected_super_in_path_token1, 306), (sym_line_comment, 3),
     (anon_sym_LBRACE, 308), (aux_sym_test_pragma_token1, 9), (aux_sym_once_pragma_token1, 11),
     (aux_sym_must_call_pragma_token1, 13), (aux_sym_export_pragma_token1, 15),
     (anon_sym_SEMI, 310), (anon_sym_PERCENT, 312), (aux_sym_input_decls_token1, 314),
     (aux_sym_output_decls_token1, 316), (aux_sym_in_out_decls_token1, 318),
     (aux_sym_var_decls_token1, 320), (aux_sym_temp_var_decls_token1, 322),
     (aux_sym_external_var_decls_token1, 324), (aux_sym_global_var_decls_token1, 326),
     (aux_sym_fb_decl_token4, 1684), (aux_sym_method_decl_token1, 330),
     (aux_sym_prog_access_decls_token1, 332), (aux_sym_initial_step_token1, 334),
     (aux_sym_config_init_token1, 336), (aux_sym__stmt_token1, 340), (aux_sym__stmt_token2, 340),
     (aux_sym__stmt_token3, 340), (aux_sym_if_stmt_token1, 342), (aux_sym_case_stmt_token1, 344),
     (aux_sym_for_stmt_token1, 346), (aux_sym_while_stmt_token1, 348),
     (aux_sym_repeat_stmt_token1, 350), (aux_sym_raise_stmt_token1, 352),
     (aux_sym_try_stmt_token1, 354), (aux_sym_try_stmt_token2, 356),
     (aux_sym_catch_clause_token1, 356), (aux_sym_finally_clause_token1, 356), (sym_ld_rung, 358),
     (sym_fbd_network, 360), (sym_c_style_comment, 3), (sym_pascal_style_comment, 3),
     (sym_pragma, 3)]"

lemma ts_parse_row_677_scan: "row_scan tokens_63_2 0 ts_parse_row_677 = Some (Suc (Suc (Suc (Suc 0))))"
  unfolding ts_parse_row_677_def by simp

text \<open>Lines 131823 to 131935.\<close>

definition ts_parse_row_678 :: parse_row where
  "ts_parse_row_678 =
    [(sym_ERR_assign_func_call, 7530), (sym_ERR_unexpected_this_in_path, 2372),
     (sym_ERR_unexpected_super_in_path, 2372), (sym_ERR_fb_variables_after_method, 1638),
     (sym_ERR_var_access_not_allowed, 3160), (sym_ERR_var_config_not_allowed, 3160),
     (sym_ERR_var_global_not_allowed, 3160), (sym_ERR_method_decl_in_body, 3150),
     (sym_extern_pragma, 7490), (sym_wasm_pragma, 3150), (sym_warn_pragma, 7490),
     (sym_allow_pragma, 3140), (sym_test_pragma, 7490), (sym_once_pragma, 7490),
     (sym_must_call_pragma, 7490), (sym_export_pragma, 7490), (sym_pou_pragma, 7194),
     (sym_direct_variable, 7675), (sym_deref_expression, 2373), (sym_variable, 7599),
     (sym_var_access, 2373), (sym_in_out_decls, 3160), (sym_var_decls, 3160),
     (sym_retain_var_decls, 3160), (sym_temp_var_decls, 3160), (sym_external_var_decls, 3160),
     (sym_global_var_decls, 2947), (sym_loc_partly_var_decl, 3160), (sym__fb_variables, 2347),
     (sym_fb_input_decls, 3160), (sym_fb_output_decls, 3160), (sym_no_retain_var_decls, 3160),
     (sym_fb_body, 9750), (sym_method_decl, 766), (sym_prog_access_decls, 3043), (sym_SFC, 7970),
     (sym_SFC_network, 7612), (sym_initial_step, 7439), (sym_config_init, 3047),
     (sym_variable_access, 7530), (sym_func_call, 2961), (sym_stmt_list, 7970), (sym__stmt, 2024),
     (sym_assign, 3150), (sym_if_stmt, 3150), (sym_case_stmt, 3150), (sym_for_stmt, 3150),
     (sym_while_stmt, 3150), (sym_repeat_stmt, 3150), (sym_raise_stmt, 3150), (sym_try_stmt, 3150),
     (sym_ERR_clause_outside_try, 3150), (sym_begin_path_expression, 2943), (sym_invocation, 2934),
     (sym_any_invocation, 2935), (sym_this_invocation, 2641), (sym_super_invocation, 2641),
     (sym_super_body_invocation, 2935), (sym_path_expression, 2627), (sym_field_expression, 2373),
     (sym_index_expression, 2373), (sym_ladder_diagram, 7970), (sym_fb_diagram, 7970),
     (aux_sym_ERR_fb_variables_after_method_repeat1, 2347), (aux_sym_func_decl_repeat1, 7194),
     (aux_sym_fb_decl_repeat3, 766), (aux_sym_SFC_repeat1, 7612), (aux_sym_stmt_list_repeat1, 2024),
     (aux_sym_ladder_diagram_repeat1, 8009), (aux_sym_fb_diagram_repeat1, 8013),
     (sym_identifier, 298), (aux_sym_ERR_unexpected_this_in_path_token1, 304),
     (aux_sym_ERR_unexpected_super_in_path_token1, 306), (sym_line_comment, 3),
     (anon_sym_LBRACE, 308), (aux_sym_test_pragma_token1, 9), (aux_sym_once_pragma_token1, 11),
     (aux_sym_must_call_pragma_token1, 13), (aux_sym_export_pragma_token1, 15),
     (anon_sym_SEMI, 310), (anon_sym_PERCENT, 312), (aux_sym_input_decls_token1, 314),
     (aux_sym_output_decls_token1, 316), (aux_sym_in_out_decls_token1, 318),
     (aux_sym_var_decls_token1, 320), (aux_sym_temp_var_decls_token1, 322),
     (aux_sym_external_var_decls_token1, 324), (aux_sym_global_var_decls_token1, 326),
     (aux_sym_fb_decl_token4, 1686), (aux_sym_method_decl_token1, 330),
     (aux_sym_prog_access_decls_token1, 332), (aux_sym_initial_step_token1, 334),
     (aux_sym_config_init_token1, 336), (aux_sym__stmt_token1, 340), (aux_sym__stmt_token2, 340),
     (aux_sym__stmt_token3, 340), (aux_sym_if_stmt_token1, 342), (aux_sym_case_stmt_token1, 344),
     (aux_sym_for_stmt_token1, 346), (aux_sym_while_stmt_token1, 348),
     (aux_sym_repeat_stmt_token1, 350), (aux_sym_raise_stmt_token1, 352),
     (aux_sym_try_stmt_token1, 354), (aux_sym_try_stmt_token2, 356),
     (aux_sym_catch_clause_token1, 356), (aux_sym_finally_clause_token1, 356), (sym_ld_rung, 358),
     (sym_fbd_network, 360), (sym_c_style_comment, 3), (sym_pascal_style_comment, 3),
     (sym_pragma, 3)]"

lemma ts_parse_row_678_scan: "row_scan tokens_63_2 0 ts_parse_row_678 = Some (Suc (Suc (Suc (Suc 0))))"
  unfolding ts_parse_row_678_def by simp

text \<open>Lines 131936 to 132048.\<close>

definition ts_parse_row_679 :: parse_row where
  "ts_parse_row_679 =
    [(sym_ERR_assign_func_call, 7530), (sym_ERR_unexpected_this_in_path, 2372),
     (sym_ERR_unexpected_super_in_path, 2372), (sym_ERR_fb_variables_after_method, 1780),
     (sym_ERR_var_access_not_allowed, 3160), (sym_ERR_var_config_not_allowed, 3160),
     (sym_ERR_var_global_not_allowed, 3160), (sym_ERR_method_decl_in_body, 3150),
     (sym_extern_pragma, 7490), (sym_wasm_pragma, 3150), (sym_warn_pragma, 7490),
     (sym_allow_pragma, 3140), (sym_test_pragma, 7490), (sym_once_pragma, 7490),
     (sym_must_call_pragma, 7490), (sym_export_pragma, 7490), (sym_pou_pragma, 7194),
     (sym_direct_variable, 7675), (sym_deref_expression, 2373), (sym_variable, 7599),
     (sym_var_access, 2373), (sym_in_out_decls, 3160), (sym_var_decls, 3160),
     (sym_retain_var_decls, 3160), (sym_temp_var_decls, 3160), (sym_external_var_decls, 3160),
     (sym_global_var_decls, 2947), (sym_loc_partly_var_decl, 3160), (sym__fb_variables, 2343),
     (sym_fb_input_decls, 3160), (sym_fb_output_decls, 3160), (sym_no_retain_var_decls, 3160),
     (sym_fb_body, 9400), (sym_method_decl, 2549), (sym_prog_access_decls, 3043), (sym_SFC, 7970),
     (sym_SFC_network, 7612), (sym_initial_step, 7439), (sym_config_init, 3047),
     (sym_variable_access, 7530), (sym_func_call, 2961), (sym_stmt_list, 7970), (sym__stmt, 2024),
     (sym_assign, 3150), (sym_if_stmt, 3150), (sym_case_stmt, 3150), (sym_for_stmt, 3150),
     (sym_while_stmt, 3150), (sym_repeat_stmt, 3150), (sym_raise_stmt, 3150), (sym_try_stmt, 3150),
     (sym_ERR_clause_outside_try, 3150), (sym_begin_path_expression, 2943), (sym_invocation, 2934),
     (sym_any_invocation, 2935), (sym_this_invocation, 2641), (sym_super_invocation, 2641),
     (sym_super_body_invocation, 2935), (sym_path_expression, 2627), (sym_field_expression, 2373),
     (sym_index_expression, 2373), (sym_ladder_diagram, 7970), (sym_fb_diagram, 7970),
     (aux_sym_ERR_fb_variables_after_method_repeat1, 2343), (aux_sym_func_decl_repeat1, 7194),
     (aux_sym_fb_decl_repeat3, 2549), (aux_sym_SFC_repeat1, 7612),
     (aux_sym_stmt_list_repeat1, 2024), (aux_sym_ladder_diagram_repeat1, 8009),
     (aux_sym_fb_diagram_repeat1, 8013), (sym_identifier, 298),
     (aux_sym_ERR_unexpected_this_in_path_token1, 304),
     (aux_sym_ERR_unexpected_super_in_path_token1, 306), (sym_line_comment, 3),
     (anon_sym_LBRACE, 308), (aux_sym_test_pragma_token1, 9), (aux_sym_once_pragma_token1, 11),
     (aux_sym_must_call_pragma_token1, 13), (aux_sym_export_pragma_token1, 15),
     (anon_sym_SEMI, 310), (anon_sym_PERCENT, 312), (aux_sym_input_decls_token1, 314),
     (aux_sym_output_decls_token1, 316), (aux_sym_in_out_decls_token1, 318),
     (aux_sym_var_decls_token1, 320), (aux_sym_temp_var_decls_token1, 322),
     (aux_sym_external_var_decls_token1, 324), (aux_sym_global_var_decls_token1, 326),
     (aux_sym_fb_decl_token4, 1688), (aux_sym_method_decl_token1, 330),
     (aux_sym_prog_access_decls_token1, 332), (aux_sym_initial_step_token1, 334),
     (aux_sym_config_init_token1, 336), (aux_sym__stmt_token1, 340), (aux_sym__stmt_token2, 340),
     (aux_sym__stmt_token3, 340), (aux_sym_if_stmt_token1, 342), (aux_sym_case_stmt_token1, 344),
     (aux_sym_for_stmt_token1, 346), (aux_sym_while_stmt_token1, 348),
     (aux_sym_repeat_stmt_token1, 350), (aux_sym_raise_stmt_token1, 352),
     (aux_sym_try_stmt_token1, 354), (aux_sym_try_stmt_token2, 356),
     (aux_sym_catch_clause_token1, 356), (aux_sym_finally_clause_token1, 356), (sym_ld_rung, 358),
     (sym_fbd_network, 360), (sym_c_style_comment, 3), (sym_pascal_style_comment, 3),
     (sym_pragma, 3)]"

lemma ts_parse_row_679_scan: "row_scan tokens_63_2 0 ts_parse_row_679 = Some (Suc (Suc (Suc (Suc 0))))"
  unfolding ts_parse_row_679_def by simp

text \<open>Lines 132049 to 132161.\<close>

definition ts_parse_row_680 :: parse_row where
  "ts_parse_row_680 =
    [(sym_ERR_assign_func_call, 7530), (sym_ERR_unexpected_this_in_path, 2372),
     (sym_ERR_unexpected_super_in_path, 2372), (sym_ERR_fb_variables_after_method, 1785),
     (sym_ERR_var_access_not_allowed, 3160), (sym_ERR_var_config_not_allowed, 3160),
     (sym_ERR_var_global_not_allowed, 3160), (sym_ERR_method_decl_in_body, 3150),
     (sym_extern_pragma, 7490), (sym_wasm_pragma, 3150), (sym_warn_pragma, 7490),
     (sym_allow_pragma, 3140), (sym_test_pragma, 7490), (sym_once_pragma, 7490),
     (sym_must_call_pragma, 7490), (sym_export_pragma, 7490), (sym_pou_pragma, 7194),
     (sym_direct_variable, 7675), (sym_deref_expression, 2373), (sym_variable, 7599),
     (sym_var_access, 2373), (sym_in_out_decls, 3160), (sym_var_decls, 3160),
     (sym_retain_var_decls, 3160), (sym_temp_var_decls, 3160), (sym_external_var_decls, 3160),
     (sym_global_var_decls, 2947), (sym_loc_partly_var_decl, 3160), (sym__fb_variables, 2343),
     (sym_fb_input_decls, 3160), (sym_fb_output_decls, 3160), (sym_no_retain_var_decls, 3160),
     (sym_fb_body, 9437), (sym_method_decl, 2549), (sym_prog_access_decls, 3043), (sym_SFC, 7970),
     (sym_SFC_network, 7612), (sym_initial_step, 7439), (sym_config_init, 3047),
     (sym_variable_access, 7530), (sym_func_call, 2961), (sym_stmt_list, 7970), (sym__stmt, 2024),
     (sym_assign, 3150), (sym_if_stmt, 3150), (sym_case_stmt, 3150), (sym_for_stmt, 3150),
     (sym_while_stmt, 3150), (sym_repeat_stmt, 3150), (sym_raise_stmt, 3150), (sym_try_stmt, 3150),
     (sym_ERR_clause_outside_try, 3150), (sym_begin_path_expression, 2943), (sym_invocation, 2934),
     (sym_any_invocation, 2935), (sym_this_invocation, 2641), (sym_super_invocation, 2641),
     (sym_super_body_invocation, 2935), (sym_path_expression, 2627), (sym_field_expression, 2373),
     (sym_index_expression, 2373), (sym_ladder_diagram, 7970), (sym_fb_diagram, 7970),
     (aux_sym_ERR_fb_variables_after_method_repeat1, 2343), (aux_sym_func_decl_repeat1, 7194),
     (aux_sym_fb_decl_repeat3, 2549), (aux_sym_SFC_repeat1, 7612),
     (aux_sym_stmt_list_repeat1, 2024), (aux_sym_ladder_diagram_repeat1, 8009),
     (aux_sym_fb_diagram_repeat1, 8013), (sym_identifier, 298),
     (aux_sym_ERR_unexpected_this_in_path_token1, 304),
     (aux_sym_ERR_unexpected_super_in_path_token1, 306), (sym_line_comment, 3),
     (anon_sym_LBRACE, 308), (aux_sym_test_pragma_token1, 9), (aux_sym_once_pragma_token1, 11),
     (aux_sym_must_call_pragma_token1, 13), (aux_sym_export_pragma_token1, 15),
     (anon_sym_SEMI, 310), (anon_sym_PERCENT, 312), (aux_sym_input_decls_token1, 314),
     (aux_sym_output_decls_token1, 316), (aux_sym_in_out_decls_token1, 318),
     (aux_sym_var_decls_token1, 320), (aux_sym_temp_var_decls_token1, 322),
     (aux_sym_external_var_decls_token1, 324), (aux_sym_global_var_decls_token1, 326),
     (aux_sym_fb_decl_token4, 1690), (aux_sym_method_decl_token1, 330),
     (aux_sym_prog_access_decls_token1, 332), (aux_sym_initial_step_token1, 334),
     (aux_sym_config_init_token1, 336), (aux_sym__stmt_token1, 340), (aux_sym__stmt_token2, 340),
     (aux_sym__stmt_token3, 340), (aux_sym_if_stmt_token1, 342), (aux_sym_case_stmt_token1, 344),
     (aux_sym_for_stmt_token1, 346), (aux_sym_while_stmt_token1, 348),
     (aux_sym_repeat_stmt_token1, 350), (aux_sym_raise_stmt_token1, 352),
     (aux_sym_try_stmt_token1, 354), (aux_sym_try_stmt_token2, 356),
     (aux_sym_catch_clause_token1, 356), (aux_sym_finally_clause_token1, 356), (sym_ld_rung, 358),
     (sym_fbd_network, 360), (sym_c_style_comment, 3), (sym_pascal_style_comment, 3),
     (sym_pragma, 3)]"

lemma ts_parse_row_680_scan: "row_scan tokens_63_2 0 ts_parse_row_680 = Some (Suc (Suc (Suc (Suc 0))))"
  unfolding ts_parse_row_680_def by simp

text \<open>Lines 132162 to 132274.\<close>

definition ts_parse_row_681 :: parse_row where
  "ts_parse_row_681 =
    [(sym_ERR_assign_func_call, 7530), (sym_ERR_unexpected_this_in_path, 2372),
     (sym_ERR_unexpected_super_in_path, 2372), (sym_ERR_fb_variables_after_method, 1644),
     (sym_ERR_var_access_not_allowed, 3160), (sym_ERR_var_config_not_allowed, 3160),
     (sym_ERR_var_global_not_allowed, 3160), (sym_ERR_method_decl_in_body, 3150),
     (sym_extern_pragma, 7490), (sym_wasm_pragma, 3150), (sym_warn_pragma, 7490),
     (sym_allow_pragma, 3140), (sym_test_pragma, 7490), (sym_once_pragma, 7490),
     (sym_must_call_pragma, 7490), (sym_export_pragma, 7490), (sym_pou_pragma, 7194),
     (sym_direct_variable, 7675), (sym_deref_expression, 2373), (sym_variable, 7599),
     (sym_var_access, 2373), (sym_in_out_decls, 3160), (sym_var_decls, 3160),
     (sym_retain_var_decls, 3160), (sym_temp_var_decls, 3160), (sym_external_var_decls, 3160),
     (sym_global_var_decls, 2947), (sym_loc_partly_var_decl, 3160), (sym__fb_variables, 2343),
     (sym_fb_input_decls, 3160), (sym_fb_output_decls, 3160), (sym_no_retain_var_decls, 3160),
     (sym_fb_body, 8212), (sym_method_decl, 2549), (sym_prog_access_decls, 3043), (sym_SFC, 7970),
     (sym_SFC_network, 7612), (sym_initial_step, 7439), (sym_config_init, 3047),
     (sym_variable_access, 7530), (sym_func_call, 2961), (sym_stmt_list, 7970), (sym__stmt, 2024),
     (sym_assign, 3150), (sym_if_stmt, 3150), (sym_case_stmt, 3150), (sym_for_stmt, 3150),
     (sym_while_stmt, 3150), (sym_repeat_stmt, 3150), (sym_raise_stmt, 3150), (sym_try_stmt, 3150),
     (sym_ERR_clause_outside_try, 3150), (sym_begin_path_expression, 2943), (sym_invocation, 2934),
     (sym_any_invocation, 2935), (sym_this_invocation, 2641), (sym_super_invocation, 2641),
     (sym_super_body_invocation, 2935), (sym_path_expression, 2627), (sym_field_expression, 2373),
     (sym_index_expression, 2373), (sym_ladder_diagram, 7970), (sym_fb_diagram, 7970),
     (aux_sym_ERR_fb_variables_after_method_repeat1, 2343), (aux_sym_func_decl_repeat1, 7194),
     (aux_sym_fb_decl_repeat3, 2549), (aux_sym_SFC_repeat1, 7612),
     (aux_sym_stmt_list_repeat1, 2024), (aux_sym_ladder_diagram_repeat1, 8009),
     (aux_sym_fb_diagram_repeat1, 8013), (sym_identifier, 298),
     (aux_sym_ERR_unexpected_this_in_path_token1, 304),
     (aux_sym_ERR_unexpected_super_in_path_token1, 306), (sym_line_comment, 3),
     (anon_sym_LBRACE, 308), (aux_sym_test_pragma_token1, 9), (aux_sym_once_pragma_token1, 11),
     (aux_sym_must_call_pragma_token1, 13), (aux_sym_export_pragma_token1, 15),
     (anon_sym_SEMI, 310), (anon_sym_PERCENT, 312), (aux_sym_input_decls_token1, 314),
     (aux_sym_output_decls_token1, 316), (aux_sym_in_out_decls_token1, 318),
     (aux_sym_var_decls_token1, 320), (aux_sym_temp_var_decls_token1, 322),
     (aux_sym_external_var_decls_token1, 324), (aux_sym_global_var_decls_token1, 326),
     (aux_sym_fb_decl_token4, 1692), (aux_sym_method_decl_token1, 330),
     (aux_sym_prog_access_decls_token1, 332), (aux_sym_initial_step_token1, 334),
     (aux_sym_config_init_token1, 336), (aux_sym__stmt_token1, 340), (aux_sym__stmt_token2, 340),
     (aux_sym__stmt_token3, 340), (aux_sym_if_stmt_token1, 342), (aux_sym_case_stmt_token1, 344),
     (aux_sym_for_stmt_token1, 346), (aux_sym_while_stmt_token1, 348),
     (aux_sym_repeat_stmt_token1, 350), (aux_sym_raise_stmt_token1, 352),
     (aux_sym_try_stmt_token1, 354), (aux_sym_try_stmt_token2, 356),
     (aux_sym_catch_clause_token1, 356), (aux_sym_finally_clause_token1, 356), (sym_ld_rung, 358),
     (sym_fbd_network, 360), (sym_c_style_comment, 3), (sym_pascal_style_comment, 3),
     (sym_pragma, 3)]"

lemma ts_parse_row_681_scan: "row_scan tokens_63_2 0 ts_parse_row_681 = Some (Suc (Suc (Suc (Suc 0))))"
  unfolding ts_parse_row_681_def by simp

text \<open>Lines 132275 to 132387.\<close>

definition ts_parse_row_682 :: parse_row where
  "ts_parse_row_682 =
    [(sym_ERR_assign_func_call, 7530), (sym_ERR_unexpected_this_in_path, 2372),
     (sym_ERR_unexpected_super_in_path, 2372), (sym_ERR_fb_variables_after_method, 1645),
     (sym_ERR_var_access_not_allowed, 3160), (sym_ERR_var_config_not_allowed, 3160),
     (sym_ERR_var_global_not_allowed, 3160), (sym_ERR_method_decl_in_body, 3150),
     (sym_extern_pragma, 7490), (sym_wasm_pragma, 3150), (sym_warn_pragma, 7490),
     (sym_allow_pragma, 3140), (sym_test_pragma, 7490), (sym_once_pragma, 7490),
     (sym_must_call_pragma, 7490), (sym_export_pragma, 7490), (sym_pou_pragma, 7194),
     (sym_direct_variable, 7675), (sym_deref_expression, 2373), (sym_variable, 7599),
     (sym_var_access, 2373), (sym_in_out_decls, 3160), (sym_var_decls, 3160),
     (sym_retain_var_decls, 3160), (sym_temp_var_decls, 3160), (sym_external_var_decls, 3160),
     (sym_global_var_decls, 2947), (sym_loc_partly_var_decl, 3160), (sym__fb_variables, 2343),
     (sym_fb_input_decls, 3160), (sym_fb_output_decls, 3160), (sym_no_retain_var_decls, 3160),
     (sym_fb_body, 9368), (sym_method_decl, 2549), (sym_prog_access_decls, 3043), (sym_SFC, 7970),
     (sym_SFC_network, 7612), (sym_initial_step, 7439), (sym_config_init, 3047),
     (sym_variable_access, 7530), (sym_func_call, 2961), (sym_stmt_list, 7970), (sym__stmt, 2024),
     (sym_assign, 3150), (sym_if_stmt, 3150), (sym_case_stmt, 3150), (sym_for_stmt, 3150),
     (sym_while_stmt, 3150), (sym_repeat_stmt, 3150), (sym_raise_stmt, 3150), (sym_try_stmt, 3150),
     (sym_ERR_clause_outside_try, 3150), (sym_begin_path_expression, 2943), (sym_invocation, 2934),
     (sym_any_invocation, 2935), (sym_this_invocation, 2641), (sym_super_invocation, 2641),
     (sym_super_body_invocation, 2935), (sym_path_expression, 2627), (sym_field_expression, 2373),
     (sym_index_expression, 2373), (sym_ladder_diagram, 7970), (sym_fb_diagram, 7970),
     (aux_sym_ERR_fb_variables_after_method_repeat1, 2343), (aux_sym_func_decl_repeat1, 7194),
     (aux_sym_fb_decl_repeat3, 2549), (aux_sym_SFC_repeat1, 7612),
     (aux_sym_stmt_list_repeat1, 2024), (aux_sym_ladder_diagram_repeat1, 8009),
     (aux_sym_fb_diagram_repeat1, 8013), (sym_identifier, 298),
     (aux_sym_ERR_unexpected_this_in_path_token1, 304),
     (aux_sym_ERR_unexpected_super_in_path_token1, 306), (sym_line_comment, 3),
     (anon_sym_LBRACE, 308), (aux_sym_test_pragma_token1, 9), (aux_sym_once_pragma_token1, 11),
     (aux_sym_must_call_pragma_token1, 13), (aux_sym_export_pragma_token1, 15),
     (anon_sym_SEMI, 310), (anon_sym_PERCENT, 312), (aux_sym_input_decls_token1, 314),
     (aux_sym_output_decls_token1, 316), (aux_sym_in_out_decls_token1, 318),
     (aux_sym_var_decls_token1, 320), (aux_sym_temp_var_decls_token1, 322),
     (aux_sym_external_var_decls_token1, 324), (aux_sym_global_var_decls_token1, 326),
     (aux_sym_fb_decl_token4, 1694), (aux_sym_method_decl_token1, 330),
     (aux_sym_prog_access_decls_token1, 332), (aux_sym_initial_step_token1, 334),
     (aux_sym_config_init_token1, 336), (aux_sym__stmt_token1, 340), (aux_sym__stmt_token2, 340),
     (aux_sym__stmt_token3, 340), (aux_sym_if_stmt_token1, 342), (aux_sym_case_stmt_token1, 344),
     (aux_sym_for_stmt_token1, 346), (aux_sym_while_stmt_token1, 348),
     (aux_sym_repeat_stmt_token1, 350), (aux_sym_raise_stmt_token1, 352),
     (aux_sym_try_stmt_token1, 354), (aux_sym_try_stmt_token2, 356),
     (aux_sym_catch_clause_token1, 356), (aux_sym_finally_clause_token1, 356), (sym_ld_rung, 358),
     (sym_fbd_network, 360), (sym_c_style_comment, 3), (sym_pascal_style_comment, 3),
     (sym_pragma, 3)]"

lemma ts_parse_row_682_scan: "row_scan tokens_63_2 0 ts_parse_row_682 = Some (Suc (Suc (Suc (Suc 0))))"
  unfolding ts_parse_row_682_def by simp

text \<open>Lines 132388 to 132500.\<close>

definition ts_parse_row_683 :: parse_row where
  "ts_parse_row_683 =
    [(sym_ERR_assign_func_call, 7530), (sym_ERR_unexpected_this_in_path, 2372),
     (sym_ERR_unexpected_super_in_path, 2372), (sym_ERR_fb_variables_after_method, 1646),
     (sym_ERR_var_access_not_allowed, 3160), (sym_ERR_var_config_not_allowed, 3160),
     (sym_ERR_var_global_not_allowed, 3160), (sym_ERR_method_decl_in_body, 3150),
     (sym_extern_pragma, 7490), (sym_wasm_pragma, 3150), (sym_warn_pragma, 7490),
     (sym_allow_pragma, 3140), (sym_test_pragma, 7490), (sym_once_pragma, 7490),
     (sym_must_call_pragma, 7490), (sym_export_pragma, 7490), (sym_pou_pragma, 7194),
     (sym_direct_variable, 7675), (sym_deref_expression, 2373), (sym_variable, 7599),
     (sym_var_access, 2373), (sym_in_out_decls, 3160), (sym_var_decls, 3160),
     (sym_retain_var_decls, 3160), (sym_temp_var_decls, 3160), (sym_external_var_decls, 3160),
     (sym_global_var_decls, 2947), (sym_loc_partly_var_decl, 3160), (sym__fb_variables, 2343),
     (sym_fb_input_decls, 3160), (sym_fb_output_decls, 3160), (sym_no_retain_var_decls, 3160),
     (sym_fb_body, 9675), (sym_method_decl, 2549), (sym_prog_access_decls, 3043), (sym_SFC, 7970),
     (sym_SFC_network, 7612), (sym_initial_step, 7439), (sym_config_init, 3047),
     (sym_variable_access, 7530), (sym_func_call, 2961), (sym_stmt_list, 7970), (sym__stmt, 2024),
     (sym_assign, 3150), (sym_if_stmt, 3150), (sym_case_stmt, 3150), (sym_for_stmt, 3150),
     (sym_while_stmt, 3150), (sym_repeat_stmt, 3150), (sym_raise_stmt, 3150), (sym_try_stmt, 3150),
     (sym_ERR_clause_outside_try, 3150), (sym_begin_path_expression, 2943), (sym_invocation, 2934),
     (sym_any_invocation, 2935), (sym_this_invocation, 2641), (sym_super_invocation, 2641),
     (sym_super_body_invocation, 2935), (sym_path_expression, 2627), (sym_field_expression, 2373),
     (sym_index_expression, 2373), (sym_ladder_diagram, 7970), (sym_fb_diagram, 7970),
     (aux_sym_ERR_fb_variables_after_method_repeat1, 2343), (aux_sym_func_decl_repeat1, 7194),
     (aux_sym_fb_decl_repeat3, 2549), (aux_sym_SFC_repeat1, 7612),
     (aux_sym_stmt_list_repeat1, 2024), (aux_sym_ladder_diagram_repeat1, 8009),
     (aux_sym_fb_diagram_repeat1, 8013), (sym_identifier, 298),
     (aux_sym_ERR_unexpected_this_in_path_token1, 304),
     (aux_sym_ERR_unexpected_super_in_path_token1, 306), (sym_line_comment, 3),
     (anon_sym_LBRACE, 308), (aux_sym_test_pragma_token1, 9), (aux_sym_once_pragma_token1, 11),
     (aux_sym_must_call_pragma_token1, 13), (aux_sym_export_pragma_token1, 15),
     (anon_sym_SEMI, 310), (anon_sym_PERCENT, 312), (aux_sym_input_decls_token1, 314),
     (aux_sym_output_decls_token1, 316), (aux_sym_in_out_decls_token1, 318),
     (aux_sym_var_decls_token1, 320), (aux_sym_temp_var_decls_token1, 322),
     (aux_sym_external_var_decls_token1, 324), (aux_sym_global_var_decls_token1, 326),
     (aux_sym_fb_decl_token4, 1696), (aux_sym_method_decl_token1, 330),
     (aux_sym_prog_access_decls_token1, 332), (aux_sym_initial_step_token1, 334),
     (aux_sym_config_init_token1, 336), (aux_sym__stmt_token1, 340), (aux_sym__stmt_token2, 340),
     (aux_sym__stmt_token3, 340), (aux_sym_if_stmt_token1, 342), (aux_sym_case_stmt_token1, 344),
     (aux_sym_for_stmt_token1, 346), (aux_sym_while_stmt_token1, 348),
     (aux_sym_repeat_stmt_token1, 350), (aux_sym_raise_stmt_token1, 352),
     (aux_sym_try_stmt_token1, 354), (aux_sym_try_stmt_token2, 356),
     (aux_sym_catch_clause_token1, 356), (aux_sym_finally_clause_token1, 356), (sym_ld_rung, 358),
     (sym_fbd_network, 360), (sym_c_style_comment, 3), (sym_pascal_style_comment, 3),
     (sym_pragma, 3)]"

lemma ts_parse_row_683_scan: "row_scan tokens_63_2 0 ts_parse_row_683 = Some (Suc (Suc (Suc (Suc 0))))"
  unfolding ts_parse_row_683_def by simp

text \<open>Lines 132501 to 132613.\<close>

definition ts_parse_row_684 :: parse_row where
  "ts_parse_row_684 =
    [(sym_ERR_assign_func_call, 7530), (sym_ERR_unexpected_this_in_path, 2372),
     (sym_ERR_unexpected_super_in_path, 2372), (sym_ERR_fb_variables_after_method, 1647),
     (sym_ERR_var_access_not_allowed, 3160), (sym_ERR_var_config_not_allowed, 3160),
     (sym_ERR_var_global_not_allowed, 3160), (sym_ERR_method_decl_in_body, 3150),
     (sym_extern_pragma, 7490), (sym_wasm_pragma, 3150), (sym_warn_pragma, 7490),
     (sym_allow_pragma, 3140), (sym_test_pragma, 7490), (sym_once_pragma, 7490),
     (sym_must_call_pragma, 7490), (sym_export_pragma, 7490), (sym_pou_pragma, 7194),
     (sym_direct_variable, 7675), (sym_deref_expression, 2373), (sym_variable, 7599),
     (sym_var_access, 2373), (sym_in_out_decls, 3160), (sym_var_decls, 3160),
     (sym_retain_var_decls, 3160), (sym_temp_var_decls, 3160), (sym_external_var_decls, 3160),
     (sym_global_var_decls, 2947), (sym_loc_partly_var_decl, 3160), (sym__fb_variables, 2347),
     (sym_fb_input_decls, 3160), (sym_fb_output_decls, 3160), (sym_no_retain_var_decls, 3160),
     (sym_fb_body, 9852), (sym_method_decl, 772), (sym_prog_access_decls, 3043), (sym_SFC, 7970),
     (sym_SFC_network, 7612), (sym_initial_step, 7439), (sym_config_init, 3047),
     (sym_variable_access, 7530), (sym_func_call, 2961), (sym_stmt_list, 7970), (sym__stmt, 2024),
     (sym_assign, 3150), (sym_if_stmt, 3150), (sym_case_stmt, 3150), (sym_for_stmt, 3150),
     (sym_while_stmt, 3150), (sym_repeat_stmt, 3150), (sym_raise_stmt, 3150), (sym_try_stmt, 3150),
     (sym_ERR_clause_outside_try, 3150), (sym_begin_path_expression, 2943), (sym_invocation, 2934),
     (sym_any_invocation, 2935), (sym_this_invocation, 2641), (sym_super_invocation, 2641),
     (sym_super_body_invocation, 2935), (sym_path_expression, 2627), (sym_field_expression, 2373),
     (sym_index_expression, 2373), (sym_ladder_diagram, 7970), (sym_fb_diagram, 7970),
     (aux_sym_ERR_fb_variables_after_method_repeat1, 2347), (aux_sym_func_decl_repeat1, 7194),
     (aux_sym_fb_decl_repeat3, 772), (aux_sym_SFC_repeat1, 7612), (aux_sym_stmt_list_repeat1, 2024),
     (aux_sym_ladder_diagram_repeat1, 8009), (aux_sym_fb_diagram_repeat1, 8013),
     (sym_identifier, 298), (aux_sym_ERR_unexpected_this_in_path_token1, 304),
     (aux_sym_ERR_unexpected_super_in_path_token1, 306), (sym_line_comment, 3),
     (anon_sym_LBRACE, 308), (aux_sym_test_pragma_token1, 9), (aux_sym_once_pragma_token1, 11),
     (aux_sym_must_call_pragma_token1, 13), (aux_sym_export_pragma_token1, 15),
     (anon_sym_SEMI, 310), (anon_sym_PERCENT, 312), (aux_sym_input_decls_token1, 314),
     (aux_sym_output_decls_token1, 316), (aux_sym_in_out_decls_token1, 318),
     (aux_sym_var_decls_token1, 320), (aux_sym_temp_var_decls_token1, 322),
     (aux_sym_external_var_decls_token1, 324), (aux_sym_global_var_decls_token1, 326),
     (aux_sym_fb_decl_token4, 1698), (aux_sym_method_decl_token1, 330),
     (aux_sym_prog_access_decls_token1, 332), (aux_sym_initial_step_token1, 334),
     (aux_sym_config_init_token1, 336), (aux_sym__stmt_token1, 340), (aux_sym__stmt_token2, 340),
     (aux_sym__stmt_token3, 340), (aux_sym_if_stmt_token1, 342), (aux_sym_case_stmt_token1, 344),
     (aux_sym_for_stmt_token1, 346), (aux_sym_while_stmt_token1, 348),
     (aux_sym_repeat_stmt_token1, 350), (aux_sym_raise_stmt_token1, 352),
     (aux_sym_try_stmt_token1, 354), (aux_sym_try_stmt_token2, 356),
     (aux_sym_catch_clause_token1, 356), (aux_sym_finally_clause_token1, 356), (sym_ld_rung, 358),
     (sym_fbd_network, 360), (sym_c_style_comment, 3), (sym_pascal_style_comment, 3),
     (sym_pragma, 3)]"

lemma ts_parse_row_684_scan: "row_scan tokens_63_2 0 ts_parse_row_684 = Some (Suc (Suc (Suc (Suc 0))))"
  unfolding ts_parse_row_684_def by simp

text \<open>Lines 132614 to 132726.\<close>

definition ts_parse_row_685 :: parse_row where
  "ts_parse_row_685 =
    [(sym_ERR_assign_func_call, 7530), (sym_ERR_unexpected_this_in_path, 2372),
     (sym_ERR_unexpected_super_in_path, 2372), (sym_ERR_fb_variables_after_method, 1649),
     (sym_ERR_var_access_not_allowed, 3160), (sym_ERR_var_config_not_allowed, 3160),
     (sym_ERR_var_global_not_allowed, 3160), (sym_ERR_method_decl_in_body, 3150),
     (sym_extern_pragma, 7490), (sym_wasm_pragma, 3150), (sym_warn_pragma, 7490),
     (sym_allow_pragma, 3140), (sym_test_pragma, 7490), (sym_once_pragma, 7490),
     (sym_must_call_pragma, 7490), (sym_export_pragma, 7490), (sym_pou_pragma, 7194),
     (sym_direct_variable, 7675), (sym_deref_expression, 2373), (sym_variable, 7599),
     (sym_var_access, 2373), (sym_in_out_decls, 3160), (sym_var_decls, 3160),
     (sym_retain_var_decls, 3160), (sym_temp_var_decls, 3160), (sym_external_var_decls, 3160),
     (sym_global_var_decls, 2947), (sym_loc_partly_var_decl, 3160), (sym__fb_variables, 2343),
     (sym_fb_input_decls, 3160), (sym_fb_output_decls, 3160), (sym_no_retain_var_decls, 3160),
     (sym_fb_body, 9901), (sym_method_decl, 2549), (sym_prog_access_decls, 3043), (sym_SFC, 7970),
     (sym_SFC_network, 7612), (sym_initial_step, 7439), (sym_config_init, 3047),
     (sym_variable_access, 7530), (sym_func_call, 2961), (sym_stmt_list, 7970), (sym__stmt, 2024),
     (sym_assign, 3150), (sym_if_stmt, 3150), (sym_case_stmt, 3150), (sym_for_stmt, 3150),
     (sym_while_stmt, 3150), (sym_repeat_stmt, 3150), (sym_raise_stmt, 3150), (sym_try_stmt, 3150),
     (sym_ERR_clause_outside_try, 3150), (sym_begin_path_expression, 2943), (sym_invocation, 2934),
     (sym_any_invocation, 2935), (sym_this_invocation, 2641), (sym_super_invocation, 2641),
     (sym_super_body_invocation, 2935), (sym_path_expression, 2627), (sym_field_expression, 2373),
     (sym_index_expression, 2373), (sym_ladder_diagram, 7970), (sym_fb_diagram, 7970),
     (aux_sym_ERR_fb_variables_after_method_repeat1, 2343), (aux_sym_func_decl_repeat1, 7194),
     (aux_sym_fb_decl_repeat3, 2549), (aux_sym_SFC_repeat1, 7612),
     (aux_sym_stmt_list_repeat1, 2024), (aux_sym_ladder_diagram_repeat1, 8009),
     (aux_sym_fb_diagram_repeat1, 8013), (sym_identifier, 298),
     (aux_sym_ERR_unexpected_this_in_path_token1, 304),
     (aux_sym_ERR_unexpected_super_in_path_token1, 306), (sym_line_comment, 3),
     (anon_sym_LBRACE, 308), (aux_sym_test_pragma_token1, 9), (aux_sym_once_pragma_token1, 11),
     (aux_sym_must_call_pragma_token1, 13), (aux_sym_export_pragma_token1, 15),
     (anon_sym_SEMI, 310), (anon_sym_PERCENT, 312), (aux_sym_input_decls_token1, 314),
     (aux_sym_output_decls_token1, 316), (aux_sym_in_out_decls_token1, 318),
     (aux_sym_var_decls_token1, 320), (aux_sym_temp_var_decls_token1, 322),
     (aux_sym_external_var_decls_token1, 324), (aux_sym_global_var_decls_token1, 326),
     (aux_sym_fb_decl_token4, 1700), (aux_sym_method_decl_token1, 330),
     (aux_sym_prog_access_decls_token1, 332), (aux_sym_initial_step_token1, 334),
     (aux_sym_config_init_token1, 336), (aux_sym__stmt_token1, 340), (aux_sym__stmt_token2, 340),
     (aux_sym__stmt_token3, 340), (aux_sym_if_stmt_token1, 342), (aux_sym_case_stmt_token1, 344),
     (aux_sym_for_stmt_token1, 346), (aux_sym_while_stmt_token1, 348),
     (aux_sym_repeat_stmt_token1, 350), (aux_sym_raise_stmt_token1, 352),
     (aux_sym_try_stmt_token1, 354), (aux_sym_try_stmt_token2, 356),
     (aux_sym_catch_clause_token1, 356), (aux_sym_finally_clause_token1, 356), (sym_ld_rung, 358),
     (sym_fbd_network, 360), (sym_c_style_comment, 3), (sym_pascal_style_comment, 3),
     (sym_pragma, 3)]"

lemma ts_parse_row_685_scan: "row_scan tokens_63_2 0 ts_parse_row_685 = Some (Suc (Suc (Suc (Suc 0))))"
  unfolding ts_parse_row_685_def by simp

text \<open>Lines 132727 to 132839.\<close>

definition ts_parse_row_686 :: parse_row where
  "ts_parse_row_686 =
    [(sym_ERR_assign_func_call, 7530), (sym_ERR_unexpected_this_in_path, 2372),
     (sym_ERR_unexpected_super_in_path, 2372), (sym_ERR_fb_variables_after_method, 1650),
     (sym_ERR_var_access_not_allowed, 3160), (sym_ERR_var_config_not_allowed, 3160),
     (sym_ERR_var_global_not_allowed, 3160), (sym_ERR_method_decl_in_body, 3150),
     (sym_extern_pragma, 7490), (sym_wasm_pragma, 3150), (sym_warn_pragma, 7490),
     (sym_allow_pragma, 3140), (sym_test_pragma, 7490), (sym_once_pragma, 7490),
     (sym_must_call_pragma, 7490), (sym_export_pragma, 7490), (sym_pou_pragma, 7194),
     (sym_direct_variable, 7675), (sym_deref_expression, 2373), (sym_variable, 7599),
     (sym_var_access, 2373), (sym_in_out_decls, 3160), (sym_var_decls, 3160),
     (sym_retain_var_decls, 3160), (sym_temp_var_decls, 3160), (sym_external_var_decls, 3160),
     (sym_global_var_decls, 2947), (sym_loc_partly_var_decl, 3160), (sym__fb_variables, 2343),
     (sym_fb_input_decls, 3160), (sym_fb_output_decls, 3160), (sym_no_retain_var_decls, 3160),
     (sym_fb_body, 10027), (sym_method_decl, 2549), (sym_prog_access_decls, 3043), (sym_SFC, 7970),
     (sym_SFC_network, 7612), (sym_initial_step, 7439), (sym_config_init, 3047),
     (sym_variable_access, 7530), (sym_func_call, 2961), (sym_stmt_list, 7970), (sym__stmt, 2024),
     (sym_assign, 3150), (sym_if_stmt, 3150), (sym_case_stmt, 3150), (sym_for_stmt, 3150),
     (sym_while_stmt, 3150), (sym_repeat_stmt, 3150), (sym_raise_stmt, 3150), (sym_try_stmt, 3150),
     (sym_ERR_clause_outside_try, 3150), (sym_begin_path_expression, 2943), (sym_invocation, 2934),
     (sym_any_invocation, 2935), (sym_this_invocation, 2641), (sym_super_invocation, 2641),
     (sym_super_body_invocation, 2935), (sym_path_expression, 2627), (sym_field_expression, 2373),
     (sym_index_expression, 2373), (sym_ladder_diagram, 7970), (sym_fb_diagram, 7970),
     (aux_sym_ERR_fb_variables_after_method_repeat1, 2343), (aux_sym_func_decl_repeat1, 7194),
     (aux_sym_fb_decl_repeat3, 2549), (aux_sym_SFC_repeat1, 7612),
     (aux_sym_stmt_list_repeat1, 2024), (aux_sym_ladder_diagram_repeat1, 8009),
     (aux_sym_fb_diagram_repeat1, 8013), (sym_identifier, 298),
     (aux_sym_ERR_unexpected_this_in_path_token1, 304),
     (aux_sym_ERR_unexpected_super_in_path_token1, 306), (sym_line_comment, 3),
     (anon_sym_LBRACE, 308), (aux_sym_test_pragma_token1, 9), (aux_sym_once_pragma_token1, 11),
     (aux_sym_must_call_pragma_token1, 13), (aux_sym_export_pragma_token1, 15),
     (anon_sym_SEMI, 310), (anon_sym_PERCENT, 312), (aux_sym_input_decls_token1, 314),
     (aux_sym_output_decls_token1, 316), (aux_sym_in_out_decls_token1, 318),
     (aux_sym_var_decls_token1, 320), (aux_sym_temp_var_decls_token1, 322),
     (aux_sym_external_var_decls_token1, 324), (aux_sym_global_var_decls_token1, 326),
     (aux_sym_fb_decl_token4, 1702), (aux_sym_method_decl_token1, 330),
     (aux_sym_prog_access_decls_token1, 332), (aux_sym_initial_step_token1, 334),
     (aux_sym_config_init_token1, 336), (aux_sym__stmt_token1, 340), (aux_sym__stmt_token2, 340),
     (aux_sym__stmt_token3, 340), (aux_sym_if_stmt_token1, 342), (aux_sym_case_stmt_token1, 344),
     (aux_sym_for_stmt_token1, 346), (aux_sym_while_stmt_token1, 348),
     (aux_sym_repeat_stmt_token1, 350), (aux_sym_raise_stmt_token1, 352),
     (aux_sym_try_stmt_token1, 354), (aux_sym_try_stmt_token2, 356),
     (aux_sym_catch_clause_token1, 356), (aux_sym_finally_clause_token1, 356), (sym_ld_rung, 358),
     (sym_fbd_network, 360), (sym_c_style_comment, 3), (sym_pascal_style_comment, 3),
     (sym_pragma, 3)]"

lemma ts_parse_row_686_scan: "row_scan tokens_63_2 0 ts_parse_row_686 = Some (Suc (Suc (Suc (Suc 0))))"
  unfolding ts_parse_row_686_def by simp

text \<open>Lines 132840 to 132952.\<close>

definition ts_parse_row_687 :: parse_row where
  "ts_parse_row_687 =
    [(sym_ERR_assign_func_call, 7530), (sym_ERR_unexpected_this_in_path, 2372),
     (sym_ERR_unexpected_super_in_path, 2372), (sym_ERR_fb_variables_after_method, 1651),
     (sym_ERR_var_access_not_allowed, 3160), (sym_ERR_var_config_not_allowed, 3160),
     (sym_ERR_var_global_not_allowed, 3160), (sym_ERR_method_decl_in_body, 3150),
     (sym_extern_pragma, 7490), (sym_wasm_pragma, 3150), (sym_warn_pragma, 7490),
     (sym_allow_pragma, 3140), (sym_test_pragma, 7490), (sym_once_pragma, 7490),
     (sym_must_call_pragma, 7490), (sym_export_pragma, 7490), (sym_pou_pragma, 7194),
     (sym_direct_variable, 7675), (sym_deref_expression, 2373), (sym_variable, 7599),
     (sym_var_access, 2373), (sym_in_out_decls, 3160), (sym_var_decls, 3160),
     (sym_retain_var_decls, 3160), (sym_temp_var_decls, 3160), (sym_external_var_decls, 3160),
     (sym_global_var_decls, 2947), (sym_loc_partly_var_decl, 3160), (sym__fb_variables, 2343),
     (sym_fb_input_decls, 3160), (sym_fb_output_decls, 3160), (sym_no_retain_var_decls, 3160),
     (sym_fb_body, 8266), (sym_method_decl, 2549), (sym_prog_access_decls, 3043), (sym_SFC, 7970),
     (sym_SFC_network, 7612), (sym_initial_step, 7439), (sym_config_init, 3047),
     (sym_variable_access, 7530), (sym_func_call, 2961), (sym_stmt_list, 7970), (sym__stmt, 2024),
     (sym_assign, 3150), (sym_if_stmt, 3150), (sym_case_stmt, 3150), (sym_for_stmt, 3150),
     (sym_while_stmt, 3150), (sym_repeat_stmt, 3150), (sym_raise_stmt, 3150), (sym_try_stmt, 3150),
     (sym_ERR_clause_outside_try, 3150), (sym_begin_path_expression, 2943), (sym_invocation, 2934),
     (sym_any_invocation, 2935), (sym_this_invocation, 2641), (sym_super_invocation, 2641),
     (sym_super_body_invocation, 2935), (sym_path_expression, 2627), (sym_field_expression, 2373),
     (sym_index_expression, 2373), (sym_ladder_diagram, 7970), (sym_fb_diagram, 7970),
     (aux_sym_ERR_fb_variables_after_method_repeat1, 2343), (aux_sym_func_decl_repeat1, 7194),
     (aux_sym_fb_decl_repeat3, 2549), (aux_sym_SFC_repeat1, 7612),
     (aux_sym_stmt_list_repeat1, 2024), (aux_sym_ladder_diagram_repeat1, 8009),
     (aux_sym_fb_diagram_repeat1, 8013), (sym_identifier, 298),
     (aux_sym_ERR_unexpected_this_in_path_token1, 304),
     (aux_sym_ERR_unexpected_super_in_path_token1, 306), (sym_line_comment, 3),
     (anon_sym_LBRACE, 308), (aux_sym_test_pragma_token1, 9), (aux_sym_once_pragma_token1, 11),
     (aux_sym_must_call_pragma_token1, 13), (aux_sym_export_pragma_token1, 15),
     (anon_sym_SEMI, 310), (anon_sym_PERCENT, 312), (aux_sym_input_decls_token1, 314),
     (aux_sym_output_decls_token1, 316), (aux_sym_in_out_decls_token1, 318),
     (aux_sym_var_decls_token1, 320), (aux_sym_temp_var_decls_token1, 322),
     (aux_sym_external_var_decls_token1, 324), (aux_sym_global_var_decls_token1, 326),
     (aux_sym_fb_decl_token4, 1704), (aux_sym_method_decl_token1, 330),
     (aux_sym_prog_access_decls_token1, 332), (aux_sym_initial_step_token1, 334),
     (aux_sym_config_init_token1, 336), (aux_sym__stmt_token1, 340), (aux_sym__stmt_token2, 340),
     (aux_sym__stmt_token3, 340), (aux_sym_if_stmt_token1, 342), (aux_sym_case_stmt_token1, 344),
     (aux_sym_for_stmt_token1, 346), (aux_sym_while_stmt_token1, 348),
     (aux_sym_repeat_stmt_token1, 350), (aux_sym_raise_stmt_token1, 352),
     (aux_sym_try_stmt_token1, 354), (aux_sym_try_stmt_token2, 356),
     (aux_sym_catch_clause_token1, 356), (aux_sym_finally_clause_token1, 356), (sym_ld_rung, 358),
     (sym_fbd_network, 360), (sym_c_style_comment, 3), (sym_pascal_style_comment, 3),
     (sym_pragma, 3)]"

lemma ts_parse_row_687_scan: "row_scan tokens_63_2 0 ts_parse_row_687 = Some (Suc (Suc (Suc (Suc 0))))"
  unfolding ts_parse_row_687_def by simp

text \<open>Lines 132953 to 133065.\<close>

definition ts_parse_row_688 :: parse_row where
  "ts_parse_row_688 =
    [(sym_ERR_assign_func_call, 7530), (sym_ERR_unexpected_this_in_path, 2372),
     (sym_ERR_unexpected_super_in_path, 2372), (sym_ERR_fb_variables_after_method, 1652),
     (sym_ERR_var_access_not_allowed, 3160), (sym_ERR_var_config_not_allowed, 3160),
     (sym_ERR_var_global_not_allowed, 3160), (sym_ERR_method_decl_in_body, 3150),
     (sym_extern_pragma, 7490), (sym_wasm_pragma, 3150), (sym_warn_pragma, 7490),
     (sym_allow_pragma, 3140), (sym_test_pragma, 7490), (sym_once_pragma, 7490),
     (sym_must_call_pragma, 7490), (sym_export_pragma, 7490), (sym_pou_pragma, 7194),
     (sym_direct_variable, 7675), (sym_deref_expression, 2373), (sym_variable, 7599),
     (sym_var_access, 2373), (sym_in_out_decls, 3160), (sym_var_decls, 3160),
     (sym_retain_var_decls, 3160), (sym_temp_var_decls, 3160), (sym_external_var_decls, 3160),
     (sym_global_var_decls, 2947), (sym_loc_partly_var_decl, 3160), (sym__fb_variables, 2347),
     (sym_fb_input_decls, 3160), (sym_fb_output_decls, 3160), (sym_no_retain_var_decls, 3160),
     (sym_fb_body, 8354), (sym_method_decl, 773), (sym_prog_access_decls, 3043), (sym_SFC, 7970),
     (sym_SFC_network, 7612), (sym_initial_step, 7439), (sym_config_init, 3047),
     (sym_variable_access, 7530), (sym_func_call, 2961), (sym_stmt_list, 7970), (sym__stmt, 2024),
     (sym_assign, 3150), (sym_if_stmt, 3150), (sym_case_stmt, 3150), (sym_for_stmt, 3150),
     (sym_while_stmt, 3150), (sym_repeat_stmt, 3150), (sym_raise_stmt, 3150), (sym_try_stmt, 3150),
     (sym_ERR_clause_outside_try, 3150), (sym_begin_path_expression, 2943), (sym_invocation, 2934),
     (sym_any_invocation, 2935), (sym_this_invocation, 2641), (sym_super_invocation, 2641),
     (sym_super_body_invocation, 2935), (sym_path_expression, 2627), (sym_field_expression, 2373),
     (sym_index_expression, 2373), (sym_ladder_diagram, 7970), (sym_fb_diagram, 7970),
     (aux_sym_ERR_fb_variables_after_method_repeat1, 2347), (aux_sym_func_decl_repeat1, 7194),
     (aux_sym_fb_decl_repeat3, 773), (aux_sym_SFC_repeat1, 7612), (aux_sym_stmt_list_repeat1, 2024),
     (aux_sym_ladder_diagram_repeat1, 8009), (aux_sym_fb_diagram_repeat1, 8013),
     (sym_identifier, 298), (aux_sym_ERR_unexpected_this_in_path_token1, 304),
     (aux_sym_ERR_unexpected_super_in_path_token1, 306), (sym_line_comment, 3),
     (anon_sym_LBRACE, 308), (aux_sym_test_pragma_token1, 9), (aux_sym_once_pragma_token1, 11),
     (aux_sym_must_call_pragma_token1, 13), (aux_sym_export_pragma_token1, 15),
     (anon_sym_SEMI, 310), (anon_sym_PERCENT, 312), (aux_sym_input_decls_token1, 314),
     (aux_sym_output_decls_token1, 316), (aux_sym_in_out_decls_token1, 318),
     (aux_sym_var_decls_token1, 320), (aux_sym_temp_var_decls_token1, 322),
     (aux_sym_external_var_decls_token1, 324), (aux_sym_global_var_decls_token1, 326),
     (aux_sym_fb_decl_token4, 1706), (aux_sym_method_decl_token1, 330),
     (aux_sym_prog_access_decls_token1, 332), (aux_sym_initial_step_token1, 334),
     (aux_sym_config_init_token1, 336), (aux_sym__stmt_token1, 340), (aux_sym__stmt_token2, 340),
     (aux_sym__stmt_token3, 340), (aux_sym_if_stmt_token1, 342), (aux_sym_case_stmt_token1, 344),
     (aux_sym_for_stmt_token1, 346), (aux_sym_while_stmt_token1, 348),
     (aux_sym_repeat_stmt_token1, 350), (aux_sym_raise_stmt_token1, 352),
     (aux_sym_try_stmt_token1, 354), (aux_sym_try_stmt_token2, 356),
     (aux_sym_catch_clause_token1, 356), (aux_sym_finally_clause_token1, 356), (sym_ld_rung, 358),
     (sym_fbd_network, 360), (sym_c_style_comment, 3), (sym_pascal_style_comment, 3),
     (sym_pragma, 3)]"

lemma ts_parse_row_688_scan: "row_scan tokens_63_2 0 ts_parse_row_688 = Some (Suc (Suc (Suc (Suc 0))))"
  unfolding ts_parse_row_688_def by simp

text \<open>Lines 133066 to 133178.\<close>

definition ts_parse_row_689 :: parse_row where
  "ts_parse_row_689 =
    [(sym_ERR_assign_func_call, 7530), (sym_ERR_unexpected_this_in_path, 2372),
     (sym_ERR_unexpected_super_in_path, 2372), (sym_ERR_fb_variables_after_method, 1653),
     (sym_ERR_var_access_not_allowed, 3160), (sym_ERR_var_config_not_allowed, 3160),
     (sym_ERR_var_global_not_allowed, 3160), (sym_ERR_method_decl_in_body, 3150),
     (sym_extern_pragma, 7490), (sym_wasm_pragma, 3150), (sym_warn_pragma, 7490),
     (sym_allow_pragma, 3140), (sym_test_pragma, 7490), (sym_once_pragma, 7490),
     (sym_must_call_pragma, 7490), (sym_export_pragma, 7490), (sym_pou_pragma, 7194),
     (sym_direct_variable, 7675), (sym_deref_expression, 2373), (sym_variable, 7599),
     (sym_var_access, 2373), (sym_in_out_decls, 3160), (sym_var_decls, 3160),
     (sym_retain_var_decls, 3160), (sym_temp_var_decls, 3160), (sym_external_var_decls, 3160),
     (sym_global_var_decls, 2947), (sym_loc_partly_var_decl, 3160), (sym__fb_variables, 2343),
     (sym_fb_input_decls, 3160), (sym_fb_output_decls, 3160), (sym_no_retain_var_decls, 3160),
     (sym_fb_body, 8418), (sym_method_decl, 2549), (sym_prog_access_decls, 3043), (sym_SFC, 7970),
     (sym_SFC_network, 7612), (sym_initial_step, 7439), (sym_config_init, 3047),
     (sym_variable_access, 7530), (sym_func_call, 2961), (sym_stmt_list, 7970), (sym__stmt, 2024),
     (sym_assign, 3150), (sym_if_stmt, 3150), (sym_case_stmt, 3150), (sym_for_stmt, 3150),
     (sym_while_stmt, 3150), (sym_repeat_stmt, 3150), (sym_raise_stmt, 3150), (sym_try_stmt, 3150),
     (sym_ERR_clause_outside_try, 3150), (sym_begin_path_expression, 2943), (sym_invocation, 2934),
     (sym_any_invocation, 2935), (sym_this_invocation, 2641), (sym_super_invocation, 2641),
     (sym_super_body_invocation, 2935), (sym_path_expression, 2627), (sym_field_expression, 2373),
     (sym_index_expression, 2373), (sym_ladder_diagram, 7970), (sym_fb_diagram, 7970),
     (aux_sym_ERR_fb_variables_after_method_repeat1, 2343), (aux_sym_func_decl_repeat1, 7194),
     (aux_sym_fb_decl_repeat3, 2549), (aux_sym_SFC_repeat1, 7612),
     (aux_sym_stmt_list_repeat1, 2024), (aux_sym_ladder_diagram_repeat1, 8009),
     (aux_sym_fb_diagram_repeat1, 8013), (sym_identifier, 298),
     (aux_sym_ERR_unexpected_this_in_path_token1, 304),
     (aux_sym_ERR_unexpected_super_in_path_token1, 306), (sym_line_comment, 3),
     (anon_sym_LBRACE, 308), (aux_sym_test_pragma_token1, 9), (aux_sym_once_pragma_token1, 11),
     (aux_sym_must_call_pragma_token1, 13), (aux_sym_export_pragma_token1, 15),
     (anon_sym_SEMI, 310), (anon_sym_PERCENT, 312), (aux_sym_input_decls_token1, 314),
     (aux_sym_output_decls_token1, 316), (aux_sym_in_out_decls_token1, 318),
     (aux_sym_var_decls_token1, 320), (aux_sym_temp_var_decls_token1, 322),
     (aux_sym_external_var_decls_token1, 324), (aux_sym_global_var_decls_token1, 326),
     (aux_sym_fb_decl_token4, 1708), (aux_sym_method_decl_token1, 330),
     (aux_sym_prog_access_decls_token1, 332), (aux_sym_initial_step_token1, 334),
     (aux_sym_config_init_token1, 336), (aux_sym__stmt_token1, 340), (aux_sym__stmt_token2, 340),
     (aux_sym__stmt_token3, 340), (aux_sym_if_stmt_token1, 342), (aux_sym_case_stmt_token1, 344),
     (aux_sym_for_stmt_token1, 346), (aux_sym_while_stmt_token1, 348),
     (aux_sym_repeat_stmt_token1, 350), (aux_sym_raise_stmt_token1, 352),
     (aux_sym_try_stmt_token1, 354), (aux_sym_try_stmt_token2, 356),
     (aux_sym_catch_clause_token1, 356), (aux_sym_finally_clause_token1, 356), (sym_ld_rung, 358),
     (sym_fbd_network, 360), (sym_c_style_comment, 3), (sym_pascal_style_comment, 3),
     (sym_pragma, 3)]"

lemma ts_parse_row_689_scan: "row_scan tokens_63_2 0 ts_parse_row_689 = Some (Suc (Suc (Suc (Suc 0))))"
  unfolding ts_parse_row_689_def by simp

text \<open>Lines 133179 to 133291.\<close>

definition ts_parse_row_690 :: parse_row where
  "ts_parse_row_690 =
    [(sym_ERR_assign_func_call, 7530), (sym_ERR_unexpected_this_in_path, 2372),
     (sym_ERR_unexpected_super_in_path, 2372), (sym_ERR_fb_variables_after_method, 1654),
     (sym_ERR_var_access_not_allowed, 3160), (sym_ERR_var_config_not_allowed, 3160),
     (sym_ERR_var_global_not_allowed, 3160), (sym_ERR_method_decl_in_body, 3150),
     (sym_extern_pragma, 7490), (sym_wasm_pragma, 3150), (sym_warn_pragma, 7490),
     (sym_allow_pragma, 3140), (sym_test_pragma, 7490), (sym_once_pragma, 7490),
     (sym_must_call_pragma, 7490), (sym_export_pragma, 7490), (sym_pou_pragma, 7194),
     (sym_direct_variable, 7675), (sym_deref_expression, 2373), (sym_variable, 7599),
     (sym_var_access, 2373), (sym_in_out_decls, 3160), (sym_var_decls, 3160),
     (sym_retain_var_decls, 3160), (sym_temp_var_decls, 3160), (sym_external_var_decls, 3160),
     (sym_global_var_decls, 2947), (sym_loc_partly_var_decl, 3160), (sym__fb_variables, 2347),
     (sym_fb_input_decls, 3160), (sym_fb_output_decls, 3160), (sym_no_retain_var_decls, 3160),
     (sym_fb_body, 8629), (sym_method_decl, 774), (sym_prog_access_decls, 3043), (sym_SFC, 7970),
     (sym_SFC_network, 7612), (sym_initial_step, 7439), (sym_config_init, 3047),
     (sym_variable_access, 7530), (sym_func_call, 2961), (sym_stmt_list, 7970), (sym__stmt, 2024),
     (sym_assign, 3150), (sym_if_stmt, 3150), (sym_case_stmt, 3150), (sym_for_stmt, 3150),
     (sym_while_stmt, 3150), (sym_repeat_stmt, 3150), (sym_raise_stmt, 3150), (sym_try_stmt, 3150),
     (sym_ERR_clause_outside_try, 3150), (sym_begin_path_expression, 2943), (sym_invocation, 2934),
     (sym_any_invocation, 2935), (sym_this_invocation, 2641), (sym_super_invocation, 2641),
     (sym_super_body_invocation, 2935), (sym_path_expression, 2627), (sym_field_expression, 2373),
     (sym_index_expression, 2373), (sym_ladder_diagram, 7970), (sym_fb_diagram, 7970),
     (aux_sym_ERR_fb_variables_after_method_repeat1, 2347), (aux_sym_func_decl_repeat1, 7194),
     (aux_sym_fb_decl_repeat3, 774), (aux_sym_SFC_repeat1, 7612), (aux_sym_stmt_list_repeat1, 2024),
     (aux_sym_ladder_diagram_repeat1, 8009), (aux_sym_fb_diagram_repeat1, 8013),
     (sym_identifier, 298), (aux_sym_ERR_unexpected_this_in_path_token1, 304),
     (aux_sym_ERR_unexpected_super_in_path_token1, 306), (sym_line_comment, 3),
     (anon_sym_LBRACE, 308), (aux_sym_test_pragma_token1, 9), (aux_sym_once_pragma_token1, 11),
     (aux_sym_must_call_pragma_token1, 13), (aux_sym_export_pragma_token1, 15),
     (anon_sym_SEMI, 310), (anon_sym_PERCENT, 312), (aux_sym_input_decls_token1, 314),
     (aux_sym_output_decls_token1, 316), (aux_sym_in_out_decls_token1, 318),
     (aux_sym_var_decls_token1, 320), (aux_sym_temp_var_decls_token1, 322),
     (aux_sym_external_var_decls_token1, 324), (aux_sym_global_var_decls_token1, 326),
     (aux_sym_fb_decl_token4, 1710), (aux_sym_method_decl_token1, 330),
     (aux_sym_prog_access_decls_token1, 332), (aux_sym_initial_step_token1, 334),
     (aux_sym_config_init_token1, 336), (aux_sym__stmt_token1, 340), (aux_sym__stmt_token2, 340),
     (aux_sym__stmt_token3, 340), (aux_sym_if_stmt_token1, 342), (aux_sym_case_stmt_token1, 344),
     (aux_sym_for_stmt_token1, 346), (aux_sym_while_stmt_token1, 348),
     (aux_sym_repeat_stmt_token1, 350), (aux_sym_raise_stmt_token1, 352),
     (aux_sym_try_stmt_token1, 354), (aux_sym_try_stmt_token2, 356),
     (aux_sym_catch_clause_token1, 356), (aux_sym_finally_clause_token1, 356), (sym_ld_rung, 358),
     (sym_fbd_network, 360), (sym_c_style_comment, 3), (sym_pascal_style_comment, 3),
     (sym_pragma, 3)]"

lemma ts_parse_row_690_scan: "row_scan tokens_63_2 0 ts_parse_row_690 = Some (Suc (Suc (Suc (Suc 0))))"
  unfolding ts_parse_row_690_def by simp

text \<open>Lines 133292 to 133404.\<close>

definition ts_parse_row_691 :: parse_row where
  "ts_parse_row_691 =
    [(sym_ERR_assign_func_call, 7530), (sym_ERR_unexpected_this_in_path, 2372),
     (sym_ERR_unexpected_super_in_path, 2372), (sym_ERR_fb_variables_after_method, 1791),
     (sym_ERR_var_access_not_allowed, 3160), (sym_ERR_var_config_not_allowed, 3160),
     (sym_ERR_var_global_not_allowed, 3160), (sym_ERR_method_decl_in_body, 3150),
     (sym_extern_pragma, 7490), (sym_wasm_pragma, 3150), (sym_warn_pragma, 7490),
     (sym_allow_pragma, 3140), (sym_test_pragma, 7490), (sym_once_pragma, 7490),
     (sym_must_call_pragma, 7490), (sym_export_pragma, 7490), (sym_pou_pragma, 7194),
     (sym_direct_variable, 7675), (sym_deref_expression, 2373), (sym_variable, 7599),
     (sym_var_access, 2373), (sym_in_out_decls, 3160), (sym_var_decls, 3160),
     (sym_retain_var_decls, 3160), (sym_temp_var_decls, 3160), (sym_external_var_decls, 3160),
     (sym_global_var_decls, 2947), (sym_loc_partly_var_decl, 3160), (sym__fb_variables, 2347),
     (sym_fb_input_decls, 3160), (sym_fb_output_decls, 3160), (sym_no_retain_var_decls, 3160),
     (sym_fb_body, 9453), (sym_method_decl, 385), (sym_prog_access_decls, 3043), (sym_SFC, 7970),
     (sym_SFC_network, 7612), (sym_initial_step, 7439), (sym_config_init, 3047),
     (sym_variable_access, 7530), (sym_func_call, 2961), (sym_stmt_list, 7970), (sym__stmt, 2024),
     (sym_assign, 3150), (sym_if_stmt, 3150), (sym_case_stmt, 3150), (sym_for_stmt, 3150),
     (sym_while_stmt, 3150), (sym_repeat_stmt, 3150), (sym_raise_stmt, 3150), (sym_try_stmt, 3150),
     (sym_ERR_clause_outside_try, 3150), (sym_begin_path_expression, 2943), (sym_invocation, 2934),
     (sym_any_invocation, 2935), (sym_this_invocation, 2641), (sym_super_invocation, 2641),
     (sym_super_body_invocation, 2935), (sym_path_expression, 2627), (sym_field_expression, 2373),
     (sym_index_expression, 2373), (sym_ladder_diagram, 7970), (sym_fb_diagram, 7970),
     (aux_sym_ERR_fb_variables_after_method_repeat1, 2347), (aux_sym_func_decl_repeat1, 7194),
     (aux_sym_fb_decl_repeat3, 385), (aux_sym_SFC_repeat1, 7612), (aux_sym_stmt_list_repeat1, 2024),
     (aux_sym_ladder_diagram_repeat1, 8009), (aux_sym_fb_diagram_repeat1, 8013),
     (sym_identifier, 298), (aux_sym_ERR_unexpected_this_in_path_token1, 304),
     (aux_sym_ERR_unexpected_super_in_path_token1, 306), (sym_line_comment, 3),
     (anon_sym_LBRACE, 308), (aux_sym_test_pragma_token1, 9), (aux_sym_once_pragma_token1, 11),
     (aux_sym_must_call_pragma_token1, 13), (aux_sym_export_pragma_token1, 15),
     (anon_sym_SEMI, 310), (anon_sym_PERCENT, 312), (aux_sym_input_decls_token1, 314),
     (aux_sym_output_decls_token1, 316), (aux_sym_in_out_decls_token1, 318),
     (aux_sym_var_decls_token1, 320), (aux_sym_temp_var_decls_token1, 322),
     (aux_sym_external_var_decls_token1, 324), (aux_sym_global_var_decls_token1, 326),
     (aux_sym_fb_decl_token4, 1712), (aux_sym_method_decl_token1, 330),
     (aux_sym_prog_access_decls_token1, 332), (aux_sym_initial_step_token1, 334),
     (aux_sym_config_init_token1, 336), (aux_sym__stmt_token1, 340), (aux_sym__stmt_token2, 340),
     (aux_sym__stmt_token3, 340), (aux_sym_if_stmt_token1, 342), (aux_sym_case_stmt_token1, 344),
     (aux_sym_for_stmt_token1, 346), (aux_sym_while_stmt_token1, 348),
     (aux_sym_repeat_stmt_token1, 350), (aux_sym_raise_stmt_token1, 352),
     (aux_sym_try_stmt_token1, 354), (aux_sym_try_stmt_token2, 356),
     (aux_sym_catch_clause_token1, 356), (aux_sym_finally_clause_token1, 356), (sym_ld_rung, 358),
     (sym_fbd_network, 360), (sym_c_style_comment, 3), (sym_pascal_style_comment, 3),
     (sym_pragma, 3)]"

lemma ts_parse_row_691_scan: "row_scan tokens_63_2 0 ts_parse_row_691 = Some (Suc (Suc (Suc (Suc 0))))"
  unfolding ts_parse_row_691_def by simp

text \<open>Lines 133405 to 133517.\<close>

definition ts_parse_row_692 :: parse_row where
  "ts_parse_row_692 =
    [(sym_ERR_assign_func_call, 7530), (sym_ERR_unexpected_this_in_path, 2372),
     (sym_ERR_unexpected_super_in_path, 2372), (sym_ERR_fb_variables_after_method, 1800),
     (sym_ERR_var_access_not_allowed, 3160), (sym_ERR_var_config_not_allowed, 3160),
     (sym_ERR_var_global_not_allowed, 3160), (sym_ERR_method_decl_in_body, 3150),
     (sym_extern_pragma, 7490), (sym_wasm_pragma, 3150), (sym_warn_pragma, 7490),
     (sym_allow_pragma, 3140), (sym_test_pragma, 7490), (sym_once_pragma, 7490),
     (sym_must_call_pragma, 7490), (sym_export_pragma, 7490), (sym_pou_pragma, 7194),
     (sym_direct_variable, 7675), (sym_deref_expression, 2373), (sym_variable, 7599),
     (sym_var_access, 2373), (sym_in_out_decls, 3160), (sym_var_decls, 3160),
     (sym_retain_var_decls, 3160), (sym_temp_var_decls, 3160), (sym_external_var_decls, 3160),
     (sym_global_var_decls, 2947), (sym_loc_partly_var_decl, 3160), (sym__fb_variables, 2343),
     (sym_fb_input_decls, 3160), (sym_fb_output_decls, 3160), (sym_no_retain_var_decls, 3160),
     (sym_fb_body, 9462), (sym_method_decl, 2549), (sym_prog_access_decls, 3043), (sym_SFC, 7970),
     (sym_SFC_network, 7612), (sym_initial_step, 7439), (sym_config_init, 3047),
     (sym_variable_access, 7530), (sym_func_call, 2961), (sym_stmt_list, 7970), (sym__stmt, 2024),
     (sym_assign, 3150), (sym_if_stmt, 3150), (sym_case_stmt, 3150), (sym_for_stmt, 3150),
     (sym_while_stmt, 3150), (sym_repeat_stmt, 3150), (sym_raise_stmt, 3150), (sym_try_stmt, 3150),
     (sym_ERR_clause_outside_try, 3150), (sym_begin_path_expression, 2943), (sym_invocation, 2934),
     (sym_any_invocation, 2935), (sym_this_invocation, 2641), (sym_super_invocation, 2641),
     (sym_super_body_invocation, 2935), (sym_path_expression, 2627), (sym_field_expression, 2373),
     (sym_index_expression, 2373), (sym_ladder_diagram, 7970), (sym_fb_diagram, 7970),
     (aux_sym_ERR_fb_variables_after_method_repeat1, 2343), (aux_sym_func_decl_repeat1, 7194),
     (aux_sym_fb_decl_repeat3, 2549), (aux_sym_SFC_repeat1, 7612),
     (aux_sym_stmt_list_repeat1, 2024), (aux_sym_ladder_diagram_repeat1, 8009),
     (aux_sym_fb_diagram_repeat1, 8013), (sym_identifier, 298),
     (aux_sym_ERR_unexpected_this_in_path_token1, 304),
     (aux_sym_ERR_unexpected_super_in_path_token1, 306), (sym_line_comment, 3),
     (anon_sym_LBRACE, 308), (aux_sym_test_pragma_token1, 9), (aux_sym_once_pragma_token1, 11),
     (aux_sym_must_call_pragma_token1, 13), (aux_sym_export_pragma_token1, 15),
     (anon_sym_SEMI, 310), (anon_sym_PERCENT, 312), (aux_sym_input_decls_token1, 314),
     (aux_sym_output_decls_token1, 316), (aux_sym_in_out_decls_token1, 318),
     (aux_sym_var_decls_token1, 320), (aux_sym_temp_var_decls_token1, 322),
     (aux_sym_external_var_decls_token1, 324), (aux_sym_global_var_decls_token1, 326),
     (aux_sym_fb_decl_token4, 1714), (aux_sym_method_decl_token1, 330),
     (aux_sym_prog_access_decls_token1, 332), (aux_sym_initial_step_token1, 334),
     (aux_sym_config_init_token1, 336), (aux_sym__stmt_token1, 340), (aux_sym__stmt_token2, 340),
     (aux_sym__stmt_token3, 340), (aux_sym_if_stmt_token1, 342), (aux_sym_case_stmt_token1, 344),
     (aux_sym_for_stmt_token1, 346), (aux_sym_while_stmt_token1, 348),
     (aux_sym_repeat_stmt_token1, 350), (aux_sym_raise_stmt_token1, 352),
     (aux_sym_try_stmt_token1, 354), (aux_sym_try_stmt_token2, 356),
     (aux_sym_catch_clause_token1, 356), (aux_sym_finally_clause_token1, 356), (sym_ld_rung, 358),
     (sym_fbd_network, 360), (sym_c_style_comment, 3), (sym_pascal_style_comment, 3),
     (sym_pragma, 3)]"

lemma ts_parse_row_692_scan: "row_scan tokens_63_2 0 ts_parse_row_692 = Some (Suc (Suc (Suc (Suc 0))))"
  unfolding ts_parse_row_692_def by simp

text \<open>Lines 133518 to 133630.\<close>

definition ts_parse_row_693 :: parse_row where
  "ts_parse_row_693 =
    [(sym_ERR_assign_func_call, 7530), (sym_ERR_unexpected_this_in_path, 2372),
     (sym_ERR_unexpected_super_in_path, 2372), (sym_ERR_fb_variables_after_method, 1661),
     (sym_ERR_var_access_not_allowed, 3160), (sym_ERR_var_config_not_allowed, 3160),
     (sym_ERR_var_global_not_allowed, 3160), (sym_ERR_method_decl_in_body, 3150),
     (sym_extern_pragma, 7490), (sym_wasm_pragma, 3150), (sym_warn_pragma, 7490),
     (sym_allow_pragma, 3140), (sym_test_pragma, 7490), (sym_once_pragma, 7490),
     (sym_must_call_pragma, 7490), (sym_export_pragma, 7490), (sym_pou_pragma, 7194),
     (sym_direct_variable, 7675), (sym_deref_expression, 2373), (sym_variable, 7599),
     (sym_var_access, 2373), (sym_in_out_decls, 3160), (sym_var_decls, 3160),
     (sym_retain_var_decls, 3160), (sym_temp_var_decls, 3160), (sym_external_var_decls, 3160),
     (sym_global_var_decls, 2947), (sym_loc_partly_var_decl, 3160), (sym__fb_variables, 2343),
     (sym_fb_input_decls, 3160), (sym_fb_output_decls, 3160), (sym_no_retain_var_decls, 3160),
     (sym_fb_body, 8953), (sym_method_decl, 2549), (sym_prog_access_decls, 3043), (sym_SFC, 7970),
     (sym_SFC_network, 7612), (sym_initial_step, 7439), (sym_config_init, 3047),
     (sym_variable_access, 7530), (sym_func_call, 2961), (sym_stmt_list, 7970), (sym__stmt, 2024),
     (sym_assign, 3150), (sym_if_stmt, 3150), (sym_case_stmt, 3150), (sym_for_stmt, 3150),
     (sym_while_stmt, 3150), (sym_repeat_stmt, 3150), (sym_raise_stmt, 3150), (sym_try_stmt, 3150),
     (sym_ERR_clause_outside_try, 3150), (sym_begin_path_expression, 2943), (sym_invocation, 2934),
     (sym_any_invocation, 2935), (sym_this_invocation, 2641), (sym_super_invocation, 2641),
     (sym_super_body_invocation, 2935), (sym_path_expression, 2627), (sym_field_expression, 2373),
     (sym_index_expression, 2373), (sym_ladder_diagram, 7970), (sym_fb_diagram, 7970),
     (aux_sym_ERR_fb_variables_after_method_repeat1, 2343), (aux_sym_func_decl_repeat1, 7194),
     (aux_sym_fb_decl_repeat3, 2549), (aux_sym_SFC_repeat1, 7612),
     (aux_sym_stmt_list_repeat1, 2024), (aux_sym_ladder_diagram_repeat1, 8009),
     (aux_sym_fb_diagram_repeat1, 8013), (sym_identifier, 298),
     (aux_sym_ERR_unexpected_this_in_path_token1, 304),
     (aux_sym_ERR_unexpected_super_in_path_token1, 306), (sym_line_comment, 3),
     (anon_sym_LBRACE, 308), (aux_sym_test_pragma_token1, 9), (aux_sym_once_pragma_token1, 11),
     (aux_sym_must_call_pragma_token1, 13), (aux_sym_export_pragma_token1, 15),
     (anon_sym_SEMI, 310), (anon_sym_PERCENT, 312), (aux_sym_input_decls_token1, 314),
     (aux_sym_output_decls_token1, 316), (aux_sym_in_out_decls_token1, 318),
     (aux_sym_var_decls_token1, 320), (aux_sym_temp_var_decls_token1, 322),
     (aux_sym_external_var_decls_token1, 324), (aux_sym_global_var_decls_token1, 326),
     (aux_sym_fb_decl_token4, 1716), (aux_sym_method_decl_token1, 330),
     (aux_sym_prog_access_decls_token1, 332), (aux_sym_initial_step_token1, 334),
     (aux_sym_config_init_token1, 336), (aux_sym__stmt_token1, 340), (aux_sym__stmt_token2, 340),
     (aux_sym__stmt_token3, 340), (aux_sym_if_stmt_token1, 342), (aux_sym_case_stmt_token1, 344),
     (aux_sym_for_stmt_token1, 346), (aux_sym_while_stmt_token1, 348),
     (aux_sym_repeat_stmt_token1, 350), (aux_sym_raise_stmt_token1, 352),
     (aux_sym_try_stmt_token1, 354), (aux_sym_try_stmt_token2, 356),
     (aux_sym_catch_clause_token1, 356), (aux_sym_finally_clause_token1, 356), (sym_ld_rung, 358),
     (sym_fbd_network, 360), (sym_c_style_comment, 3), (sym_pascal_style_comment, 3),
     (sym_pragma, 3)]"

lemma ts_parse_row_693_scan: "row_scan tokens_63_2 0 ts_parse_row_693 = Some (Suc (Suc (Suc (Suc 0))))"
  unfolding ts_parse_row_693_def by simp

text \<open>Lines 133631 to 133743.\<close>

definition ts_parse_row_694 :: parse_row where
  "ts_parse_row_694 =
    [(sym_ERR_assign_func_call, 7530), (sym_ERR_unexpected_this_in_path, 2372),
     (sym_ERR_unexpected_super_in_path, 2372), (sym_ERR_fb_variables_after_method, 1662),
     (sym_ERR_var_access_not_allowed, 3160), (sym_ERR_var_config_not_allowed, 3160),
     (sym_ERR_var_global_not_allowed, 3160), (sym_ERR_method_decl_in_body, 3150),
     (sym_extern_pragma, 7490), (sym_wasm_pragma, 3150), (sym_warn_pragma, 7490),
     (sym_allow_pragma, 3140), (sym_test_pragma, 7490), (sym_once_pragma, 7490),
     (sym_must_call_pragma, 7490), (sym_export_pragma, 7490), (sym_pou_pragma, 7194),
     (sym_direct_variable, 7675), (sym_deref_expression, 2373), (sym_variable, 7599),
     (sym_var_access, 2373), (sym_in_out_decls, 3160), (sym_var_decls, 3160),
     (sym_retain_var_decls, 3160), (sym_temp_var_decls, 3160), (sym_external_var_decls, 3160),
     (sym_global_var_decls, 2947), (sym_loc_partly_var_decl, 3160), (sym__fb_variables, 2343),
     (sym_fb_input_decls, 3160), (sym_fb_output_decls, 3160), (sym_no_retain_var_decls, 3160),
     (sym_fb_body, 9192), (sym_method_decl, 2549), (sym_prog_access_decls, 3043), (sym_SFC, 7970),
     (sym_SFC_network, 7612), (sym_initial_step, 7439), (sym_config_init, 3047),
     (sym_variable_access, 7530), (sym_func_call, 2961), (sym_stmt_list, 7970), (sym__stmt, 2024),
     (sym_assign, 3150), (sym_if_stmt, 3150), (sym_case_stmt, 3150), (sym_for_stmt, 3150),
     (sym_while_stmt, 3150), (sym_repeat_stmt, 3150), (sym_raise_stmt, 3150), (sym_try_stmt, 3150),
     (sym_ERR_clause_outside_try, 3150), (sym_begin_path_expression, 2943), (sym_invocation, 2934),
     (sym_any_invocation, 2935), (sym_this_invocation, 2641), (sym_super_invocation, 2641),
     (sym_super_body_invocation, 2935), (sym_path_expression, 2627), (sym_field_expression, 2373),
     (sym_index_expression, 2373), (sym_ladder_diagram, 7970), (sym_fb_diagram, 7970),
     (aux_sym_ERR_fb_variables_after_method_repeat1, 2343), (aux_sym_func_decl_repeat1, 7194),
     (aux_sym_fb_decl_repeat3, 2549), (aux_sym_SFC_repeat1, 7612),
     (aux_sym_stmt_list_repeat1, 2024), (aux_sym_ladder_diagram_repeat1, 8009),
     (aux_sym_fb_diagram_repeat1, 8013), (sym_identifier, 298),
     (aux_sym_ERR_unexpected_this_in_path_token1, 304),
     (aux_sym_ERR_unexpected_super_in_path_token1, 306), (sym_line_comment, 3),
     (anon_sym_LBRACE, 308), (aux_sym_test_pragma_token1, 9), (aux_sym_once_pragma_token1, 11),
     (aux_sym_must_call_pragma_token1, 13), (aux_sym_export_pragma_token1, 15),
     (anon_sym_SEMI, 310), (anon_sym_PERCENT, 312), (aux_sym_input_decls_token1, 314),
     (aux_sym_output_decls_token1, 316), (aux_sym_in_out_decls_token1, 318),
     (aux_sym_var_decls_token1, 320), (aux_sym_temp_var_decls_token1, 322),
     (aux_sym_external_var_decls_token1, 324), (aux_sym_global_var_decls_token1, 326),
     (aux_sym_fb_decl_token4, 1718), (aux_sym_method_decl_token1, 330),
     (aux_sym_prog_access_decls_token1, 332), (aux_sym_initial_step_token1, 334),
     (aux_sym_config_init_token1, 336), (aux_sym__stmt_token1, 340), (aux_sym__stmt_token2, 340),
     (aux_sym__stmt_token3, 340), (aux_sym_if_stmt_token1, 342), (aux_sym_case_stmt_token1, 344),
     (aux_sym_for_stmt_token1, 346), (aux_sym_while_stmt_token1, 348),
     (aux_sym_repeat_stmt_token1, 350), (aux_sym_raise_stmt_token1, 352),
     (aux_sym_try_stmt_token1, 354), (aux_sym_try_stmt_token2, 356),
     (aux_sym_catch_clause_token1, 356), (aux_sym_finally_clause_token1, 356), (sym_ld_rung, 358),
     (sym_fbd_network, 360), (sym_c_style_comment, 3), (sym_pascal_style_comment, 3),
     (sym_pragma, 3)]"

lemma ts_parse_row_694_scan: "row_scan tokens_63_2 0 ts_parse_row_694 = Some (Suc (Suc (Suc (Suc 0))))"
  unfolding ts_parse_row_694_def by simp

text \<open>Lines 133744 to 133856.\<close>

definition ts_parse_row_695 :: parse_row where
  "ts_parse_row_695 =
    [(sym_ERR_assign_func_call, 7530), (sym_ERR_unexpected_this_in_path, 2372),
     (sym_ERR_unexpected_super_in_path, 2372), (sym_ERR_fb_variables_after_method, 1803),
     (sym_ERR_var_access_not_allowed, 3160), (sym_ERR_var_config_not_allowed, 3160),
     (sym_ERR_var_global_not_allowed, 3160), (sym_ERR_method_decl_in_body, 3150),
     (sym_extern_pragma, 7490), (sym_wasm_pragma, 3150), (sym_warn_pragma, 7490),
     (sym_allow_pragma, 3140), (sym_test_pragma, 7490), (sym_once_pragma, 7490),
     (sym_must_call_pragma, 7490), (sym_export_pragma, 7490), (sym_pou_pragma, 7194),
     (sym_direct_variable, 7675), (sym_deref_expression, 2373), (sym_variable, 7599),
     (sym_var_access, 2373), (sym_in_out_decls, 3160), (sym_var_decls, 3160),
     (sym_retain_var_decls, 3160), (sym_temp_var_decls, 3160), (sym_external_var_decls, 3160),
     (sym_global_var_decls, 2947), (sym_loc_partly_var_decl, 3160), (sym__fb_variables, 2347),
     (sym_fb_input_decls, 3160), (sym_fb_output_decls, 3160), (sym_no_retain_var_decls, 3160),
     (sym_fb_body, 9470), (sym_method_decl, 386), (sym_prog_access_decls, 3043), (sym_SFC, 7970),
     (sym_SFC_network, 7612), (sym_initial_step, 7439), (sym_config_init, 3047),
     (sym_variable_access, 7530), (sym_func_call, 2961), (sym_stmt_list, 7970), (sym__stmt, 2024),
     (sym_assign, 3150), (sym_if_stmt, 3150), (sym_case_stmt, 3150), (sym_for_stmt, 3150),
     (sym_while_stmt, 3150), (sym_repeat_stmt, 3150), (sym_raise_stmt, 3150), (sym_try_stmt, 3150),
     (sym_ERR_clause_outside_try, 3150), (sym_begin_path_expression, 2943), (sym_invocation, 2934),
     (sym_any_invocation, 2935), (sym_this_invocation, 2641), (sym_super_invocation, 2641),
     (sym_super_body_invocation, 2935), (sym_path_expression, 2627), (sym_field_expression, 2373),
     (sym_index_expression, 2373), (sym_ladder_diagram, 7970), (sym_fb_diagram, 7970),
     (aux_sym_ERR_fb_variables_after_method_repeat1, 2347), (aux_sym_func_decl_repeat1, 7194),
     (aux_sym_fb_decl_repeat3, 386), (aux_sym_SFC_repeat1, 7612), (aux_sym_stmt_list_repeat1, 2024),
     (aux_sym_ladder_diagram_repeat1, 8009), (aux_sym_fb_diagram_repeat1, 8013),
     (sym_identifier, 298), (aux_sym_ERR_unexpected_this_in_path_token1, 304),
     (aux_sym_ERR_unexpected_super_in_path_token1, 306), (sym_line_comment, 3),
     (anon_sym_LBRACE, 308), (aux_sym_test_pragma_token1, 9), (aux_sym_once_pragma_token1, 11),
     (aux_sym_must_call_pragma_token1, 13), (aux_sym_export_pragma_token1, 15),
     (anon_sym_SEMI, 310), (anon_sym_PERCENT, 312), (aux_sym_input_decls_token1, 314),
     (aux_sym_output_decls_token1, 316), (aux_sym_in_out_decls_token1, 318),
     (aux_sym_var_decls_token1, 320), (aux_sym_temp_var_decls_token1, 322),
     (aux_sym_external_var_decls_token1, 324), (aux_sym_global_var_decls_token1, 326),
     (aux_sym_fb_decl_token4, 1720), (aux_sym_method_decl_token1, 330),
     (aux_sym_prog_access_decls_token1, 332), (aux_sym_initial_step_token1, 334),
     (aux_sym_config_init_token1, 336), (aux_sym__stmt_token1, 340), (aux_sym__stmt_token2, 340),
     (aux_sym__stmt_token3, 340), (aux_sym_if_stmt_token1, 342), (aux_sym_case_stmt_token1, 344),
     (aux_sym_for_stmt_token1, 346), (aux_sym_while_stmt_token1, 348),
     (aux_sym_repeat_stmt_token1, 350), (aux_sym_raise_stmt_token1, 352),
     (aux_sym_try_stmt_token1, 354), (aux_sym_try_stmt_token2, 356),
     (aux_sym_catch_clause_token1, 356), (aux_sym_finally_clause_token1, 356), (sym_ld_rung, 358),
     (sym_fbd_network, 360), (sym_c_style_comment, 3), (sym_pascal_style_comment, 3),
     (sym_pragma, 3)]"

lemma ts_parse_row_695_scan: "row_scan tokens_63_2 0 ts_parse_row_695 = Some (Suc (Suc (Suc (Suc 0))))"
  unfolding ts_parse_row_695_def by simp

text \<open>Lines 133857 to 133969.\<close>

definition ts_parse_row_696 :: parse_row where
  "ts_parse_row_696 =
    [(sym_ERR_assign_func_call, 7530), (sym_ERR_unexpected_this_in_path, 2372),
     (sym_ERR_unexpected_super_in_path, 2372), (sym_ERR_fb_variables_after_method, 1665),
     (sym_ERR_var_access_not_allowed, 3160), (sym_ERR_var_config_not_allowed, 3160),
     (sym_ERR_var_global_not_allowed, 3160), (sym_ERR_method_decl_in_body, 3150),
     (sym_extern_pragma, 7490), (sym_wasm_pragma, 3150), (sym_warn_pragma, 7490),
     (sym_allow_pragma, 3140), (sym_test_pragma, 7490), (sym_once_pragma, 7490),
     (sym_must_call_pragma, 7490), (sym_export_pragma, 7490), (sym_pou_pragma, 7194),
     (sym_direct_variable, 7675), (sym_deref_expression, 2373), (sym_variable, 7599),
     (sym_var_access, 2373), (sym_in_out_decls, 3160), (sym_var_decls, 3160),
     (sym_retain_var_decls, 3160), (sym_temp_var_decls, 3160), (sym_external_var_decls, 3160),
     (sym_global_var_decls, 2947), (sym_loc_partly_var_decl, 3160), (sym__fb_variables, 2343),
     (sym_fb_input_decls, 3160), (sym_fb_output_decls, 3160), (sym_no_retain_var_decls, 3160),
     (sym_fb_body, 9421), (sym_method_decl, 2549), (sym_prog_access_decls, 3043), (sym_SFC, 7970),
     (sym_SFC_network, 7612), (sym_initial_step, 7439), (sym_config_init, 3047),
     (sym_variable_access, 7530), (sym_func_call, 2961), (sym_stmt_list, 7970), (sym__stmt, 2024),
     (sym_assign, 3150), (sym_if_stmt, 3150), (sym_case_stmt, 3150), (sym_for_stmt, 3150),
     (sym_while_stmt, 3150), (sym_repeat_stmt, 3150), (sym_raise_stmt, 3150), (sym_try_stmt, 3150),
     (sym_ERR_clause_outside_try, 3150), (sym_begin_path_expression, 2943), (sym_invocation, 2934),
     (sym_any_invocation, 2935), (sym_this_invocation, 2641), (sym_super_invocation, 2641),
     (sym_super_body_invocation, 2935), (sym_path_expression, 2627), (sym_field_expression, 2373),
     (sym_index_expression, 2373), (sym_ladder_diagram, 7970), (sym_fb_diagram, 7970),
     (aux_sym_ERR_fb_variables_after_method_repeat1, 2343), (aux_sym_func_decl_repeat1, 7194),
     (aux_sym_fb_decl_repeat3, 2549), (aux_sym_SFC_repeat1, 7612),
     (aux_sym_stmt_list_repeat1, 2024), (aux_sym_ladder_diagram_repeat1, 8009),
     (aux_sym_fb_diagram_repeat1, 8013), (sym_identifier, 298),
     (aux_sym_ERR_unexpected_this_in_path_token1, 304),
     (aux_sym_ERR_unexpected_super_in_path_token1, 306), (sym_line_comment, 3),
     (anon_sym_LBRACE, 308), (aux_sym_test_pragma_token1, 9), (aux_sym_once_pragma_token1, 11),
     (aux_sym_must_call_pragma_token1, 13), (aux_sym_export_pragma_token1, 15),
     (anon_sym_SEMI, 310), (anon_sym_PERCENT, 312), (aux_sym_input_decls_token1, 314),
     (aux_sym_output_decls_token1, 316), (aux_sym_in_out_decls_token1, 318),
     (aux_sym_var_decls_token1, 320), (aux_sym_temp_var_decls_token1, 322),
     (aux_sym_external_var_decls_token1, 324), (aux_sym_global_var_decls_token1, 326),
     (aux_sym_fb_decl_token4, 1722), (aux_sym_method_decl_token1, 330),
     (aux_sym_prog_access_decls_token1, 332), (aux_sym_initial_step_token1, 334),
     (aux_sym_config_init_token1, 336), (aux_sym__stmt_token1, 340), (aux_sym__stmt_token2, 340),
     (aux_sym__stmt_token3, 340), (aux_sym_if_stmt_token1, 342), (aux_sym_case_stmt_token1, 344),
     (aux_sym_for_stmt_token1, 346), (aux_sym_while_stmt_token1, 348),
     (aux_sym_repeat_stmt_token1, 350), (aux_sym_raise_stmt_token1, 352),
     (aux_sym_try_stmt_token1, 354), (aux_sym_try_stmt_token2, 356),
     (aux_sym_catch_clause_token1, 356), (aux_sym_finally_clause_token1, 356), (sym_ld_rung, 358),
     (sym_fbd_network, 360), (sym_c_style_comment, 3), (sym_pascal_style_comment, 3),
     (sym_pragma, 3)]"

lemma ts_parse_row_696_scan: "row_scan tokens_63_2 0 ts_parse_row_696 = Some (Suc (Suc (Suc (Suc 0))))"
  unfolding ts_parse_row_696_def by simp

text \<open>Lines 133970 to 134082.\<close>

definition ts_parse_row_697 :: parse_row where
  "ts_parse_row_697 =
    [(sym_ERR_assign_func_call, 7530), (sym_ERR_unexpected_this_in_path, 2372),
     (sym_ERR_unexpected_super_in_path, 2372), (sym_ERR_fb_variables_after_method, 1666),
     (sym_ERR_var_access_not_allowed, 3160), (sym_ERR_var_config_not_allowed, 3160),
     (sym_ERR_var_global_not_allowed, 3160), (sym_ERR_method_decl_in_body, 3150),
     (sym_extern_pragma, 7490), (sym_wasm_pragma, 3150), (sym_warn_pragma, 7490),
     (sym_allow_pragma, 3140), (sym_test_pragma, 7490), (sym_once_pragma, 7490),
     (sym_must_call_pragma, 7490), (sym_export_pragma, 7490), (sym_pou_pragma, 7194),
     (sym_direct_variable, 7675), (sym_deref_expression, 2373), (sym_variable, 7599),
     (sym_var_access, 2373), (sym_in_out_decls, 3160), (sym_var_decls, 3160),
     (sym_retain_var_decls, 3160), (sym_temp_var_decls, 3160), (sym_external_var_decls, 3160),
     (sym_global_var_decls, 2947), (sym_loc_partly_var_decl, 3160), (sym__fb_variables, 2347),
     (sym_fb_input_decls, 3160), (sym_fb_output_decls, 3160), (sym_no_retain_var_decls, 3160),
     (sym_fb_body, 9529), (sym_method_decl, 784), (sym_prog_access_decls, 3043), (sym_SFC, 7970),
     (sym_SFC_network, 7612), (sym_initial_step, 7439), (sym_config_init, 3047),
     (sym_variable_access, 7530), (sym_func_call, 2961), (sym_stmt_list, 7970), (sym__stmt, 2024),
     (sym_assign, 3150), (sym_if_stmt, 3150), (sym_case_stmt, 3150), (sym_for_stmt, 3150),
     (sym_while_stmt, 3150), (sym_repeat_stmt, 3150), (sym_raise_stmt, 3150), (sym_try_stmt, 3150),
     (sym_ERR_clause_outside_try, 3150), (sym_begin_path_expression, 2943), (sym_invocation, 2934),
     (sym_any_invocation, 2935), (sym_this_invocation, 2641), (sym_super_invocation, 2641),
     (sym_super_body_invocation, 2935), (sym_path_expression, 2627), (sym_field_expression, 2373),
     (sym_index_expression, 2373), (sym_ladder_diagram, 7970), (sym_fb_diagram, 7970),
     (aux_sym_ERR_fb_variables_after_method_repeat1, 2347), (aux_sym_func_decl_repeat1, 7194),
     (aux_sym_fb_decl_repeat3, 784), (aux_sym_SFC_repeat1, 7612), (aux_sym_stmt_list_repeat1, 2024),
     (aux_sym_ladder_diagram_repeat1, 8009), (aux_sym_fb_diagram_repeat1, 8013),
     (sym_identifier, 298), (aux_sym_ERR_unexpected_this_in_path_token1, 304),
     (aux_sym_ERR_unexpected_super_in_path_token1, 306), (sym_line_comment, 3),
     (anon_sym_LBRACE, 308), (aux_sym_test_pragma_token1, 9), (aux_sym_once_pragma_token1, 11),
     (aux_sym_must_call_pragma_token1, 13), (aux_sym_export_pragma_token1, 15),
     (anon_sym_SEMI, 310), (anon_sym_PERCENT, 312), (aux_sym_input_decls_token1, 314),
     (aux_sym_output_decls_token1, 316), (aux_sym_in_out_decls_token1, 318),
     (aux_sym_var_decls_token1, 320), (aux_sym_temp_var_decls_token1, 322),
     (aux_sym_external_var_decls_token1, 324), (aux_sym_global_var_decls_token1, 326),
     (aux_sym_fb_decl_token4, 1724), (aux_sym_method_decl_token1, 330),
     (aux_sym_prog_access_decls_token1, 332), (aux_sym_initial_step_token1, 334),
     (aux_sym_config_init_token1, 336), (aux_sym__stmt_token1, 340), (aux_sym__stmt_token2, 340),
     (aux_sym__stmt_token3, 340), (aux_sym_if_stmt_token1, 342), (aux_sym_case_stmt_token1, 344),
     (aux_sym_for_stmt_token1, 346), (aux_sym_while_stmt_token1, 348),
     (aux_sym_repeat_stmt_token1, 350), (aux_sym_raise_stmt_token1, 352),
     (aux_sym_try_stmt_token1, 354), (aux_sym_try_stmt_token2, 356),
     (aux_sym_catch_clause_token1, 356), (aux_sym_finally_clause_token1, 356), (sym_ld_rung, 358),
     (sym_fbd_network, 360), (sym_c_style_comment, 3), (sym_pascal_style_comment, 3),
     (sym_pragma, 3)]"

lemma ts_parse_row_697_scan: "row_scan tokens_63_2 0 ts_parse_row_697 = Some (Suc (Suc (Suc (Suc 0))))"
  unfolding ts_parse_row_697_def by simp

text \<open>Lines 134083 to 134195.\<close>

definition ts_parse_row_698 :: parse_row where
  "ts_parse_row_698 =
    [(sym_ERR_assign_func_call, 7530), (sym_ERR_unexpected_this_in_path, 2372),
     (sym_ERR_unexpected_super_in_path, 2372), (sym_ERR_fb_variables_after_method, 1668),
     (sym_ERR_var_access_not_allowed, 3160), (sym_ERR_var_config_not_allowed, 3160),
     (sym_ERR_var_global_not_allowed, 3160), (sym_ERR_method_decl_in_body, 3150),
     (sym_extern_pragma, 7490), (sym_wasm_pragma, 3150), (sym_warn_pragma, 7490),
     (sym_allow_pragma, 3140), (sym_test_pragma, 7490), (sym_once_pragma, 7490),
     (sym_must_call_pragma, 7490), (sym_export_pragma, 7490), (sym_pou_pragma, 7194),
     (sym_direct_variable, 7675), (sym_deref_expression, 2373), (sym_variable, 7599),
     (sym_var_access, 2373), (sym_in_out_decls, 3160), (sym_var_decls, 3160),
     (sym_retain_var_decls, 3160), (sym_temp_var_decls, 3160), (sym_external_var_decls, 3160),
     (sym_global_var_decls, 2947), (sym_loc_partly_var_decl, 3160), (sym__fb_variables, 2343),
     (sym_fb_input_decls, 3160), (sym_fb_output_decls, 3160), (sym_no_retain_var_decls, 3160),
     (sym_fb_body, 9630), (sym_method_decl, 2549), (sym_prog_access_decls, 3043), (sym_SFC, 7970),
     (sym_SFC_network, 7612), (sym_initial_step, 7439), (sym_config_init, 3047),
     (sym_variable_access, 7530), (sym_func_call, 2961), (sym_stmt_list, 7970), (sym__stmt, 2024),
     (sym_assign, 3150), (sym_if_stmt, 3150), (sym_case_stmt, 3150), (sym_for_stmt, 3150),
     (sym_while_stmt, 3150), (sym_repeat_stmt, 3150), (sym_raise_stmt, 3150), (sym_try_stmt, 3150),
     (sym_ERR_clause_outside_try, 3150), (sym_begin_path_expression, 2943), (sym_invocation, 2934),
     (sym_any_invocation, 2935), (sym_this_invocation, 2641), (sym_super_invocation, 2641),
     (sym_super_body_invocation, 2935), (sym_path_expression, 2627), (sym_field_expression, 2373),
     (sym_index_expression, 2373), (sym_ladder_diagram, 7970), (sym_fb_diagram, 7970),
     (aux_sym_ERR_fb_variables_after_method_repeat1, 2343), (aux_sym_func_decl_repeat1, 7194),
     (aux_sym_fb_decl_repeat3, 2549), (aux_sym_SFC_repeat1, 7612),
     (aux_sym_stmt_list_repeat1, 2024), (aux_sym_ladder_diagram_repeat1, 8009),
     (aux_sym_fb_diagram_repeat1, 8013), (sym_identifier, 298),
     (aux_sym_ERR_unexpected_this_in_path_token1, 304),
     (aux_sym_ERR_unexpected_super_in_path_token1, 306), (sym_line_comment, 3),
     (anon_sym_LBRACE, 308), (aux_sym_test_pragma_token1, 9), (aux_sym_once_pragma_token1, 11),
     (aux_sym_must_call_pragma_token1, 13), (aux_sym_export_pragma_token1, 15),
     (anon_sym_SEMI, 310), (anon_sym_PERCENT, 312), (aux_sym_input_decls_token1, 314),
     (aux_sym_output_decls_token1, 316), (aux_sym_in_out_decls_token1, 318),
     (aux_sym_var_decls_token1, 320), (aux_sym_temp_var_decls_token1, 322),
     (aux_sym_external_var_decls_token1, 324), (aux_sym_global_var_decls_token1, 326),
     (aux_sym_fb_decl_token4, 1726), (aux_sym_method_decl_token1, 330),
     (aux_sym_prog_access_decls_token1, 332), (aux_sym_initial_step_token1, 334),
     (aux_sym_config_init_token1, 336), (aux_sym__stmt_token1, 340), (aux_sym__stmt_token2, 340),
     (aux_sym__stmt_token3, 340), (aux_sym_if_stmt_token1, 342), (aux_sym_case_stmt_token1, 344),
     (aux_sym_for_stmt_token1, 346), (aux_sym_while_stmt_token1, 348),
     (aux_sym_repeat_stmt_token1, 350), (aux_sym_raise_stmt_token1, 352),
     (aux_sym_try_stmt_token1, 354), (aux_sym_try_stmt_token2, 356),
     (aux_sym_catch_clause_token1, 356), (aux_sym_finally_clause_token1, 356), (sym_ld_rung, 358),
     (sym_fbd_network, 360), (sym_c_style_comment, 3), (sym_pascal_style_comment, 3),
     (sym_pragma, 3)]"

lemma ts_parse_row_698_scan: "row_scan tokens_63_2 0 ts_parse_row_698 = Some (Suc (Suc (Suc (Suc 0))))"
  unfolding ts_parse_row_698_def by simp

text \<open>Lines 134196 to 134308.\<close>

definition ts_parse_row_699 :: parse_row where
  "ts_parse_row_699 =
    [(sym_ERR_assign_func_call, 7530), (sym_ERR_unexpected_this_in_path, 2372),
     (sym_ERR_unexpected_super_in_path, 2372), (sym_ERR_fb_variables_after_method, 1669),
     (sym_ERR_var_access_not_allowed, 3160), (sym_ERR_var_config_not_allowed, 3160),
     (sym_ERR_var_global_not_allowed, 3160), (sym_ERR_method_decl_in_body, 3150),
     (sym_extern_pragma, 7490), (sym_wasm_pragma, 3150), (sym_warn_pragma, 7490),
     (sym_allow_pragma, 3140), (sym_test_pragma, 7490), (sym_once_pragma, 7490),
     (sym_must_call_pragma, 7490), (sym_export_pragma, 7490), (sym_pou_pragma, 7194),
     (sym_direct_variable, 7675), (sym_deref_expression, 2373), (sym_variable, 7599),
     (sym_var_access, 2373), (sym_in_out_decls, 3160), (sym_var_decls, 3160),
     (sym_retain_var_decls, 3160), (sym_temp_var_decls, 3160), (sym_external_var_decls, 3160),
     (sym_global_var_decls, 2947), (sym_loc_partly_var_decl, 3160), (sym__fb_variables, 2347),
     (sym_fb_input_decls, 3160), (sym_fb_output_decls, 3160), (sym_no_retain_var_decls, 3160),
     (sym_fb_body, 9667), (sym_method_decl, 785), (sym_prog_access_decls, 3043), (sym_SFC, 7970),
     (sym_SFC_network, 7612), (sym_initial_step, 7439), (sym_config_init, 3047),
     (sym_variable_access, 7530), (sym_func_call, 2961), (sym_stmt_list, 7970), (sym__stmt, 2024),
     (sym_assign, 3150), (sym_if_stmt, 3150), (sym_case_stmt, 3150), (sym_for_stmt, 3150),
     (sym_while_stmt, 3150), (sym_repeat_stmt, 3150), (sym_raise_stmt, 3150), (sym_try_stmt, 3150),
     (sym_ERR_clause_outside_try, 3150), (sym_begin_path_expression, 2943), (sym_invocation, 2934),
     (sym_any_invocation, 2935), (sym_this_invocation, 2641), (sym_super_invocation, 2641),
     (sym_super_body_invocation, 2935), (sym_path_expression, 2627), (sym_field_expression, 2373),
     (sym_index_expression, 2373), (sym_ladder_diagram, 7970), (sym_fb_diagram, 7970),
     (aux_sym_ERR_fb_variables_after_method_repeat1, 2347), (aux_sym_func_decl_repeat1, 7194),
     (aux_sym_fb_decl_repeat3, 785), (aux_sym_SFC_repeat1, 7612), (aux_sym_stmt_list_repeat1, 2024),
     (aux_sym_ladder_diagram_repeat1, 8009), (aux_sym_fb_diagram_repeat1, 8013),
     (sym_identifier, 298), (aux_sym_ERR_unexpected_this_in_path_token1, 304),
     (aux_sym_ERR_unexpected_super_in_path_token1, 306), (sym_line_comment, 3),
     (anon_sym_LBRACE, 308), (aux_sym_test_pragma_token1, 9), (aux_sym_once_pragma_token1, 11),
     (aux_sym_must_call_pragma_token1, 13), (aux_sym_export_pragma_token1, 15),
     (anon_sym_SEMI, 310), (anon_sym_PERCENT, 312), (aux_sym_input_decls_token1, 314),
     (aux_sym_output_decls_token1, 316), (aux_sym_in_out_decls_token1, 318),
     (aux_sym_var_decls_token1, 320), (aux_sym_temp_var_decls_token1, 322),
     (aux_sym_external_var_decls_token1, 324), (aux_sym_global_var_decls_token1, 326),
     (aux_sym_fb_decl_token4, 1728), (aux_sym_method_decl_token1, 330),
     (aux_sym_prog_access_decls_token1, 332), (aux_sym_initial_step_token1, 334),
     (aux_sym_config_init_token1, 336), (aux_sym__stmt_token1, 340), (aux_sym__stmt_token2, 340),
     (aux_sym__stmt_token3, 340), (aux_sym_if_stmt_token1, 342), (aux_sym_case_stmt_token1, 344),
     (aux_sym_for_stmt_token1, 346), (aux_sym_while_stmt_token1, 348),
     (aux_sym_repeat_stmt_token1, 350), (aux_sym_raise_stmt_token1, 352),
     (aux_sym_try_stmt_token1, 354), (aux_sym_try_stmt_token2, 356),
     (aux_sym_catch_clause_token1, 356), (aux_sym_finally_clause_token1, 356), (sym_ld_rung, 358),
     (sym_fbd_network, 360), (sym_c_style_comment, 3), (sym_pascal_style_comment, 3),
     (sym_pragma, 3)]"

lemma ts_parse_row_699_scan: "row_scan tokens_63_2 0 ts_parse_row_699 = Some (Suc (Suc (Suc (Suc 0))))"
  unfolding ts_parse_row_699_def by simp

text \<open>Lines 134309 to 134421.\<close>

definition ts_parse_row_700 :: parse_row where
  "ts_parse_row_700 =
    [(sym_ERR_assign_func_call, 7530), (sym_ERR_unexpected_this_in_path, 2372),
     (sym_ERR_unexpected_super_in_path, 2372), (sym_ERR_fb_variables_after_method, 1275),
     (sym_ERR_var_access_not_allowed, 3160), (sym_ERR_var_config_not_allowed, 3160),
     (sym_ERR_var_global_not_allowed, 3160), (sym_ERR_method_decl_in_body, 3150),
     (sym_extern_pragma, 7490), (sym_wasm_pragma, 3150), (sym_warn_pragma, 7490),
     (sym_allow_pragma, 3140), (sym_test_pragma, 7490), (sym_once_pragma, 7490),
     (sym_must_call_pragma, 7490), (sym_export_pragma, 7490), (sym_pou_pragma, 7194),
     (sym_direct_variable, 7675), (sym_deref_expression, 2373), (sym_variable, 7599),
     (sym_var_access, 2373), (sym_in_out_decls, 3160), (sym_var_decls, 3160),
     (sym_retain_var_decls, 3160), (sym_temp_var_decls, 3160), (sym_external_var_decls, 3160),
     (sym_global_var_decls, 2947), (sym_loc_partly_var_decl, 3160), (sym__fb_variables, 2347),
     (sym_fb_input_decls, 3160), (sym_fb_output_decls, 3160), (sym_no_retain_var_decls, 3160),
     (sym_fb_body, 9710), (sym_method_decl, 642), (sym_prog_access_decls, 3043), (sym_SFC, 7970),
     (sym_SFC_network, 7612), (sym_initial_step, 7439), (sym_config_init, 3047),
     (sym_variable_access, 7530), (sym_func_call, 2961), (sym_stmt_list, 7970), (sym__stmt, 2024),
     (sym_assign, 3150), (sym_if_stmt, 3150), (sym_case_stmt, 3150), (sym_for_stmt, 3150),
     (sym_while_stmt, 3150), (sym_repeat_stmt, 3150), (sym_raise_stmt, 3150), (sym_try_stmt, 3150),
     (sym_ERR_clause_outside_try, 3150), (sym_begin_path_expression, 2943), (sym_invocation, 2934),
     (sym_any_invocation, 2935), (sym_this_invocation, 2641), (sym_super_invocation, 2641),
     (sym_super_body_invocation, 2935), (sym_path_expression, 2627), (sym_field_expression, 2373),
     (sym_index_expression, 2373), (sym_ladder_diagram, 7970), (sym_fb_diagram, 7970),
     (aux_sym_ERR_fb_variables_after_method_repeat1, 2347), (aux_sym_func_decl_repeat1, 7194),
     (aux_sym_fb_decl_repeat3, 642), (aux_sym_SFC_repeat1, 7612), (aux_sym_stmt_list_repeat1, 2024),
     (aux_sym_ladder_diagram_repeat1, 8009), (aux_sym_fb_diagram_repeat1, 8013),
     (sym_identifier, 298), (aux_sym_ERR_unexpected_this_in_path_token1, 304),
     (aux_sym_ERR_unexpected_super_in_path_token1, 306), (sym_line_comment, 3),
     (anon_sym_LBRACE, 308), (aux_sym_test_pragma_token1, 9), (aux_sym_once_pragma_token1, 11),
     (aux_sym_must_call_pragma_token1, 13), (aux_sym_export_pragma_token1, 15),
     (anon_sym_SEMI, 310), (anon_sym_PERCENT, 312), (aux_sym_input_decls_token1, 314),
     (aux_sym_output_decls_token1, 316), (aux_sym_in_out_decls_token1, 318),
     (aux_sym_var_decls_token1, 320), (aux_sym_temp_var_decls_token1, 322),
     (aux_sym_external_var_decls_token1, 324), (aux_sym_global_var_decls_token1, 326),
     (aux_sym_fb_decl_token4, 1730), (aux_sym_method_decl_token1, 330),
     (aux_sym_prog_access_decls_token1, 332), (aux_sym_initial_step_token1, 334),
     (aux_sym_config_init_token1, 336), (aux_sym__stmt_token1, 340), (aux_sym__stmt_token2, 340),
     (aux_sym__stmt_token3, 340), (aux_sym_if_stmt_token1, 342), (aux_sym_case_stmt_token1, 344),
     (aux_sym_for_stmt_token1, 346), (aux_sym_while_stmt_token1, 348),
     (aux_sym_repeat_stmt_token1, 350), (aux_sym_raise_stmt_token1, 352),
     (aux_sym_try_stmt_token1, 354), (aux_sym_try_stmt_token2, 356),
     (aux_sym_catch_clause_token1, 356), (aux_sym_finally_clause_token1, 356), (sym_ld_rung, 358),
     (sym_fbd_network, 360), (sym_c_style_comment, 3), (sym_pascal_style_comment, 3),
     (sym_pragma, 3)]"

lemma ts_parse_row_700_scan: "row_scan tokens_63_2 0 ts_parse_row_700 = Some (Suc (Suc (Suc (Suc 0))))"
  unfolding ts_parse_row_700_def by simp

text \<open>Lines 134422 to 134534.\<close>

definition ts_parse_row_701 :: parse_row where
  "ts_parse_row_701 =
    [(sym_ERR_assign_func_call, 7530), (sym_ERR_unexpected_this_in_path, 2372),
     (sym_ERR_unexpected_super_in_path, 2372), (sym_ERR_fb_variables_after_method, 1673),
     (sym_ERR_var_access_not_allowed, 3160), (sym_ERR_var_config_not_allowed, 3160),
     (sym_ERR_var_global_not_allowed, 3160), (sym_ERR_method_decl_in_body, 3150),
     (sym_extern_pragma, 7490), (sym_wasm_pragma, 3150), (sym_warn_pragma, 7490),
     (sym_allow_pragma, 3140), (sym_test_pragma, 7490), (sym_once_pragma, 7490),
     (sym_must_call_pragma, 7490), (sym_export_pragma, 7490), (sym_pou_pragma, 7194),
     (sym_direct_variable, 7675), (sym_deref_expression, 2373), (sym_variable, 7599),
     (sym_var_access, 2373), (sym_in_out_decls, 3160), (sym_var_decls, 3160),
     (sym_retain_var_decls, 3160), (sym_temp_var_decls, 3160), (sym_external_var_decls, 3160),
     (sym_global_var_decls, 2947), (sym_loc_partly_var_decl, 3160), (sym__fb_variables, 2343),
     (sym_fb_input_decls, 3160), (sym_fb_output_decls, 3160), (sym_no_retain_var_decls, 3160),
     (sym_fb_body, 9811), (sym_method_decl, 2549), (sym_prog_access_decls, 3043), (sym_SFC, 7970),
     (sym_SFC_network, 7612), (sym_initial_step, 7439), (sym_config_init, 3047),
     (sym_variable_access, 7530), (sym_func_call, 2961), (sym_stmt_list, 7970), (sym__stmt, 2024),
     (sym_assign, 3150), (sym_if_stmt, 3150), (sym_case_stmt, 3150), (sym_for_stmt, 3150),
     (sym_while_stmt, 3150), (sym_repeat_stmt, 3150), (sym_raise_stmt, 3150), (sym_try_stmt, 3150),
     (sym_ERR_clause_outside_try, 3150), (sym_begin_path_expression, 2943), (sym_invocation, 2934),
     (sym_any_invocation, 2935), (sym_this_invocation, 2641), (sym_super_invocation, 2641),
     (sym_super_body_invocation, 2935), (sym_path_expression, 2627), (sym_field_expression, 2373),
     (sym_index_expression, 2373), (sym_ladder_diagram, 7970), (sym_fb_diagram, 7970),
     (aux_sym_ERR_fb_variables_after_method_repeat1, 2343), (aux_sym_func_decl_repeat1, 7194),
     (aux_sym_fb_decl_repeat3, 2549), (aux_sym_SFC_repeat1, 7612),
     (aux_sym_stmt_list_repeat1, 2024), (aux_sym_ladder_diagram_repeat1, 8009),
     (aux_sym_fb_diagram_repeat1, 8013), (sym_identifier, 298),
     (aux_sym_ERR_unexpected_this_in_path_token1, 304),
     (aux_sym_ERR_unexpected_super_in_path_token1, 306), (sym_line_comment, 3),
     (anon_sym_LBRACE, 308), (aux_sym_test_pragma_token1, 9), (aux_sym_once_pragma_token1, 11),
     (aux_sym_must_call_pragma_token1, 13), (aux_sym_export_pragma_token1, 15),
     (anon_sym_SEMI, 310), (anon_sym_PERCENT, 312), (aux_sym_input_decls_token1, 314),
     (aux_sym_output_decls_token1, 316), (aux_sym_in_out_decls_token1, 318),
     (aux_sym_var_decls_token1, 320), (aux_sym_temp_var_decls_token1, 322),
     (aux_sym_external_var_decls_token1, 324), (aux_sym_global_var_decls_token1, 326),
     (aux_sym_fb_decl_token4, 1732), (aux_sym_method_decl_token1, 330),
     (aux_sym_prog_access_decls_token1, 332), (aux_sym_initial_step_token1, 334),
     (aux_sym_config_init_token1, 336), (aux_sym__stmt_token1, 340), (aux_sym__stmt_token2, 340),
     (aux_sym__stmt_token3, 340), (aux_sym_if_stmt_token1, 342), (aux_sym_case_stmt_token1, 344),
     (aux_sym_for_stmt_token1, 346), (aux_sym_while_stmt_token1, 348),
     (aux_sym_repeat_stmt_token1, 350), (aux_sym_raise_stmt_token1, 352),
     (aux_sym_try_stmt_token1, 354), (aux_sym_try_stmt_token2, 356),
     (aux_sym_catch_clause_token1, 356), (aux_sym_finally_clause_token1, 356), (sym_ld_rung, 358),
     (sym_fbd_network, 360), (sym_c_style_comment, 3), (sym_pascal_style_comment, 3),
     (sym_pragma, 3)]"

lemma ts_parse_row_701_scan: "row_scan tokens_63_2 0 ts_parse_row_701 = Some (Suc (Suc (Suc (Suc 0))))"
  unfolding ts_parse_row_701_def by simp

text \<open>Lines 134535 to 134647.\<close>

definition ts_parse_row_702 :: parse_row where
  "ts_parse_row_702 =
    [(sym_ERR_assign_func_call, 7530), (sym_ERR_unexpected_this_in_path, 2372),
     (sym_ERR_unexpected_super_in_path, 2372), (sym_ERR_fb_variables_after_method, 1674),
     (sym_ERR_var_access_not_allowed, 3160), (sym_ERR_var_config_not_allowed, 3160),
     (sym_ERR_var_global_not_allowed, 3160), (sym_ERR_method_decl_in_body, 3150),
     (sym_extern_pragma, 7490), (sym_wasm_pragma, 3150), (sym_warn_pragma, 7490),
     (sym_allow_pragma, 3140), (sym_test_pragma, 7490), (sym_once_pragma, 7490),
     (sym_must_call_pragma, 7490), (sym_export_pragma, 7490), (sym_pou_pragma, 7194),
     (sym_direct_variable, 7675), (sym_deref_expression, 2373), (sym_variable, 7599),
     (sym_var_access, 2373), (sym_in_out_decls, 3160), (sym_var_decls, 3160),
     (sym_retain_var_decls, 3160), (sym_temp_var_decls, 3160), (sym_external_var_decls, 3160),
     (sym_global_var_decls, 2947), (sym_loc_partly_var_decl, 3160), (sym__fb_variables, 2343),
     (sym_fb_input_decls, 3160), (sym_fb_output_decls, 3160), (sym_no_retain_var_decls, 3160),
     (sym_fb_body, 9903), (sym_method_decl, 2549), (sym_prog_access_decls, 3043), (sym_SFC, 7970),
     (sym_SFC_network, 7612), (sym_initial_step, 7439), (sym_config_init, 3047),
     (sym_variable_access, 7530), (sym_func_call, 2961), (sym_stmt_list, 7970), (sym__stmt, 2024),
     (sym_assign, 3150), (sym_if_stmt, 3150), (sym_case_stmt, 3150), (sym_for_stmt, 3150),
     (sym_while_stmt, 3150), (sym_repeat_stmt, 3150), (sym_raise_stmt, 3150), (sym_try_stmt, 3150),
     (sym_ERR_clause_outside_try, 3150), (sym_begin_path_expression, 2943), (sym_invocation, 2934),
     (sym_any_invocation, 2935), (sym_this_invocation, 2641), (sym_super_invocation, 2641),
     (sym_super_body_invocation, 2935), (sym_path_expression, 2627), (sym_field_expression, 2373),
     (sym_index_expression, 2373), (sym_ladder_diagram, 7970), (sym_fb_diagram, 7970),
     (aux_sym_ERR_fb_variables_after_method_repeat1, 2343), (aux_sym_func_decl_repeat1, 7194),
     (aux_sym_fb_decl_repeat3, 2549), (aux_sym_SFC_repeat1, 7612),
     (aux_sym_stmt_list_repeat1, 2024), (aux_sym_ladder_diagram_repeat1, 8009),
     (aux_sym_fb_diagram_repeat1, 8013), (sym_identifier, 298),
     (aux_sym_ERR_unexpected_this_in_path_token1, 304),
     (aux_sym_ERR_unexpected_super_in_path_token1, 306), (sym_line_comment, 3),
     (anon_sym_LBRACE, 308), (aux_sym_test_pragma_token1, 9), (aux_sym_once_pragma_token1, 11),
     (aux_sym_must_call_pragma_token1, 13), (aux_sym_export_pragma_token1, 15),
     (anon_sym_SEMI, 310), (anon_sym_PERCENT, 312), (aux_sym_input_decls_token1, 314),
     (aux_sym_output_decls_token1, 316), (aux_sym_in_out_decls_token1, 318),
     (aux_sym_var_decls_token1, 320), (aux_sym_temp_var_decls_token1, 322),
     (aux_sym_external_var_decls_token1, 324), (aux_sym_global_var_decls_token1, 326),
     (aux_sym_fb_decl_token4, 1734), (aux_sym_method_decl_token1, 330),
     (aux_sym_prog_access_decls_token1, 332), (aux_sym_initial_step_token1, 334),
     (aux_sym_config_init_token1, 336), (aux_sym__stmt_token1, 340), (aux_sym__stmt_token2, 340),
     (aux_sym__stmt_token3, 340), (aux_sym_if_stmt_token1, 342), (aux_sym_case_stmt_token1, 344),
     (aux_sym_for_stmt_token1, 346), (aux_sym_while_stmt_token1, 348),
     (aux_sym_repeat_stmt_token1, 350), (aux_sym_raise_stmt_token1, 352),
     (aux_sym_try_stmt_token1, 354), (aux_sym_try_stmt_token2, 356),
     (aux_sym_catch_clause_token1, 356), (aux_sym_finally_clause_token1, 356), (sym_ld_rung, 358),
     (sym_fbd_network, 360), (sym_c_style_comment, 3), (sym_pascal_style_comment, 3),
     (sym_pragma, 3)]"

lemma ts_parse_row_702_scan: "row_scan tokens_63_2 0 ts_parse_row_702 = Some (Suc (Suc (Suc (Suc 0))))"
  unfolding ts_parse_row_702_def by simp

text \<open>Lines 134648 to 134760.\<close>

definition ts_parse_row_703 :: parse_row where
  "ts_parse_row_703 =
    [(sym_ERR_assign_func_call, 7530), (sym_ERR_unexpected_this_in_path, 2372),
     (sym_ERR_unexpected_super_in_path, 2372), (sym_ERR_fb_variables_after_method, 1675),
     (sym_ERR_var_access_not_allowed, 3160), (sym_ERR_var_config_not_allowed, 3160),
     (sym_ERR_var_global_not_allowed, 3160), (sym_ERR_method_decl_in_body, 3150),
     (sym_extern_pragma, 7490), (sym_wasm_pragma, 3150), (sym_warn_pragma, 7490),
     (sym_allow_pragma, 3140), (sym_test_pragma, 7490), (sym_once_pragma, 7490),
     (sym_must_call_pragma, 7490), (sym_export_pragma, 7490), (sym_pou_pragma, 7194),
     (sym_direct_variable, 7675), (sym_deref_expression, 2373), (sym_variable, 7599),
     (sym_var_access, 2373), (sym_in_out_decls, 3160), (sym_var_decls, 3160),
     (sym_retain_var_decls, 3160), (sym_temp_var_decls, 3160), (sym_external_var_decls, 3160),
     (sym_global_var_decls, 2947), (sym_loc_partly_var_decl, 3160), (sym__fb_variables, 2347),
     (sym_fb_input_decls, 3160), (sym_fb_output_decls, 3160), (sym_no_retain_var_decls, 3160),
     (sym_fb_body, 9911), (sym_method_decl, 788), (sym_prog_access_decls, 3043), (sym_SFC, 7970),
     (sym_SFC_network, 7612), (sym_initial_step, 7439), (sym_config_init, 3047),
     (sym_variable_access, 7530), (sym_func_call, 2961), (sym_stmt_list, 7970), (sym__stmt, 2024),
     (sym_assign, 3150), (sym_if_stmt, 3150), (sym_case_stmt, 3150), (sym_for_stmt, 3150),
     (sym_while_stmt, 3150), (sym_repeat_stmt, 3150), (sym_raise_stmt, 3150), (sym_try_stmt, 3150),
     (sym_ERR_clause_outside_try, 3150), (sym_begin_path_expression, 2943), (sym_invocation, 2934),
     (sym_any_invocation, 2935), (sym_this_invocation, 2641), (sym_super_invocation, 2641),
     (sym_super_body_invocation, 2935), (sym_path_expression, 2627), (sym_field_expression, 2373),
     (sym_index_expression, 2373), (sym_ladder_diagram, 7970), (sym_fb_diagram, 7970),
     (aux_sym_ERR_fb_variables_after_method_repeat1, 2347), (aux_sym_func_decl_repeat1, 7194),
     (aux_sym_fb_decl_repeat3, 788), (aux_sym_SFC_repeat1, 7612), (aux_sym_stmt_list_repeat1, 2024),
     (aux_sym_ladder_diagram_repeat1, 8009), (aux_sym_fb_diagram_repeat1, 8013),
     (sym_identifier, 298), (aux_sym_ERR_unexpected_this_in_path_token1, 304),
     (aux_sym_ERR_unexpected_super_in_path_token1, 306), (sym_line_comment, 3),
     (anon_sym_LBRACE, 308), (aux_sym_test_pragma_token1, 9), (aux_sym_once_pragma_token1, 11),
     (aux_sym_must_call_pragma_token1, 13), (aux_sym_export_pragma_token1, 15),
     (anon_sym_SEMI, 310), (anon_sym_PERCENT, 312), (aux_sym_input_decls_token1, 314),
     (aux_sym_output_decls_token1, 316), (aux_sym_in_out_decls_token1, 318),
     (aux_sym_var_decls_token1, 320), (aux_sym_temp_var_decls_token1, 322),
     (aux_sym_external_var_decls_token1, 324), (aux_sym_global_var_decls_token1, 326),
     (aux_sym_fb_decl_token4, 1736), (aux_sym_method_decl_token1, 330),
     (aux_sym_prog_access_decls_token1, 332), (aux_sym_initial_step_token1, 334),
     (aux_sym_config_init_token1, 336), (aux_sym__stmt_token1, 340), (aux_sym__stmt_token2, 340),
     (aux_sym__stmt_token3, 340), (aux_sym_if_stmt_token1, 342), (aux_sym_case_stmt_token1, 344),
     (aux_sym_for_stmt_token1, 346), (aux_sym_while_stmt_token1, 348),
     (aux_sym_repeat_stmt_token1, 350), (aux_sym_raise_stmt_token1, 352),
     (aux_sym_try_stmt_token1, 354), (aux_sym_try_stmt_token2, 356),
     (aux_sym_catch_clause_token1, 356), (aux_sym_finally_clause_token1, 356), (sym_ld_rung, 358),
     (sym_fbd_network, 360), (sym_c_style_comment, 3), (sym_pascal_style_comment, 3),
     (sym_pragma, 3)]"

lemma ts_parse_row_703_scan: "row_scan tokens_63_2 0 ts_parse_row_703 = Some (Suc (Suc (Suc (Suc 0))))"
  unfolding ts_parse_row_703_def by simp

text \<open>Lines 134761 to 134873.\<close>

definition ts_parse_row_704 :: parse_row where
  "ts_parse_row_704 =
    [(sym_ERR_assign_func_call, 7530), (sym_ERR_unexpected_this_in_path, 2372),
     (sym_ERR_unexpected_super_in_path, 2372), (sym_ERR_fb_variables_after_method, 1676),
     (sym_ERR_var_access_not_allowed, 3160), (sym_ERR_var_config_not_allowed, 3160),
     (sym_ERR_var_global_not_allowed, 3160), (sym_ERR_method_decl_in_body, 3150),
     (sym_extern_pragma, 7490), (sym_wasm_pragma, 3150), (sym_warn_pragma, 7490),
     (sym_allow_pragma, 3140), (sym_test_pragma, 7490), (sym_once_pragma, 7490),
     (sym_must_call_pragma, 7490), (sym_export_pragma, 7490), (sym_pou_pragma, 7194),
     (sym_direct_variable, 7675), (sym_deref_expression, 2373), (sym_variable, 7599),
     (sym_var_access, 2373), (sym_in_out_decls, 3160), (sym_var_decls, 3160),
     (sym_retain_var_decls, 3160), (sym_temp_var_decls, 3160), (sym_external_var_decls, 3160),
     (sym_global_var_decls, 2947), (sym_loc_partly_var_decl, 3160), (sym__fb_variables, 2343),
     (sym_fb_input_decls, 3160), (sym_fb_output_decls, 3160), (sym_no_retain_var_decls, 3160),
     (sym_fb_body, 9919), (sym_method_decl, 2549), (sym_prog_access_decls, 3043), (sym_SFC, 7970),
     (sym_SFC_network, 7612), (sym_initial_step, 7439), (sym_config_init, 3047),
     (sym_variable_access, 7530), (sym_func_call, 2961), (sym_stmt_list, 7970), (sym__stmt, 2024),
     (sym_assign, 3150), (sym_if_stmt, 3150), (sym_case_stmt, 3150), (sym_for_stmt, 3150),
     (sym_while_stmt, 3150), (sym_repeat_stmt, 3150), (sym_raise_stmt, 3150), (sym_try_stmt, 3150),
     (sym_ERR_clause_outside_try, 3150), (sym_begin_path_expression, 2943), (sym_invocation, 2934),
     (sym_any_invocation, 2935), (sym_this_invocation, 2641), (sym_super_invocation, 2641),
     (sym_super_body_invocation, 2935), (sym_path_expression, 2627), (sym_field_expression, 2373),
     (sym_index_expression, 2373), (sym_ladder_diagram, 7970), (sym_fb_diagram, 7970),
     (aux_sym_ERR_fb_variables_after_method_repeat1, 2343), (aux_sym_func_decl_repeat1, 7194),
     (aux_sym_fb_decl_repeat3, 2549), (aux_sym_SFC_repeat1, 7612),
     (aux_sym_stmt_list_repeat1, 2024), (aux_sym_ladder_diagram_repeat1, 8009),
     (aux_sym_fb_diagram_repeat1, 8013), (sym_identifier, 298),
     (aux_sym_ERR_unexpected_this_in_path_token1, 304),
     (aux_sym_ERR_unexpected_super_in_path_token1, 306), (sym_line_comment, 3),
     (anon_sym_LBRACE, 308), (aux_sym_test_pragma_token1, 9), (aux_sym_once_pragma_token1, 11),
     (aux_sym_must_call_pragma_token1, 13), (aux_sym_export_pragma_token1, 15),
     (anon_sym_SEMI, 310), (anon_sym_PERCENT, 312), (aux_sym_input_decls_token1, 314),
     (aux_sym_output_decls_token1, 316), (aux_sym_in_out_decls_token1, 318),
     (aux_sym_var_decls_token1, 320), (aux_sym_temp_var_decls_token1, 322),
     (aux_sym_external_var_decls_token1, 324), (aux_sym_global_var_decls_token1, 326),
     (aux_sym_fb_decl_token4, 1738), (aux_sym_method_decl_token1, 330),
     (aux_sym_prog_access_decls_token1, 332), (aux_sym_initial_step_token1, 334),
     (aux_sym_config_init_token1, 336), (aux_sym__stmt_token1, 340), (aux_sym__stmt_token2, 340),
     (aux_sym__stmt_token3, 340), (aux_sym_if_stmt_token1, 342), (aux_sym_case_stmt_token1, 344),
     (aux_sym_for_stmt_token1, 346), (aux_sym_while_stmt_token1, 348),
     (aux_sym_repeat_stmt_token1, 350), (aux_sym_raise_stmt_token1, 352),
     (aux_sym_try_stmt_token1, 354), (aux_sym_try_stmt_token2, 356),
     (aux_sym_catch_clause_token1, 356), (aux_sym_finally_clause_token1, 356), (sym_ld_rung, 358),
     (sym_fbd_network, 360), (sym_c_style_comment, 3), (sym_pascal_style_comment, 3),
     (sym_pragma, 3)]"

lemma ts_parse_row_704_scan: "row_scan tokens_63_2 0 ts_parse_row_704 = Some (Suc (Suc (Suc (Suc 0))))"
  unfolding ts_parse_row_704_def by simp

text \<open>Lines 134874 to 134986.\<close>

definition ts_parse_row_705 :: parse_row where
  "ts_parse_row_705 =
    [(sym_ERR_assign_func_call, 7530), (sym_ERR_unexpected_this_in_path, 2372),
     (sym_ERR_unexpected_super_in_path, 2372), (sym_ERR_fb_variables_after_method, 1677),
     (sym_ERR_var_access_not_allowed, 3160), (sym_ERR_var_config_not_allowed, 3160),
     (sym_ERR_var_global_not_allowed, 3160), (sym_ERR_method_decl_in_body, 3150),
     (sym_extern_pragma, 7490), (sym_wasm_pragma, 3150), (sym_warn_pragma, 7490),
     (sym_allow_pragma, 3140), (sym_test_pragma, 7490), (sym_once_pragma, 7490),
     (sym_must_call_pragma, 7490), (sym_export_pragma, 7490), (sym_pou_pragma, 7194),
     (sym_direct_variable, 7675), (sym_deref_expression, 2373), (sym_variable, 7599),
     (sym_var_access, 2373), (sym_in_out_decls, 3160), (sym_var_decls, 3160),
     (sym_retain_var_decls, 3160), (sym_temp_var_decls, 3160), (sym_external_var_decls, 3160),
     (sym_global_var_decls, 2947), (sym_loc_partly_var_decl, 3160), (sym__fb_variables, 2347),
     (sym_fb_input_decls, 3160), (sym_fb_output_decls, 3160), (sym_no_retain_var_decls, 3160),
     (sym_fb_body, 9928), (sym_method_decl, 789), (sym_prog_access_decls, 3043), (sym_SFC, 7970),
     (sym_SFC_network, 7612), (sym_initial_step, 7439), (sym_config_init, 3047),
     (sym_variable_access, 7530), (sym_func_call, 2961), (sym_stmt_list, 7970), (sym__stmt, 2024),
     (sym_assign, 3150), (sym_if_stmt, 3150), (sym_case_stmt, 3150), (sym_for_stmt, 3150),
     (sym_while_stmt, 3150), (sym_repeat_stmt, 3150), (sym_raise_stmt, 3150), (sym_try_stmt, 3150),
     (sym_ERR_clause_outside_try, 3150), (sym_begin_path_expression, 2943), (sym_invocation, 2934),
     (sym_any_invocation, 2935), (sym_this_invocation, 2641), (sym_super_invocation, 2641),
     (sym_super_body_invocation, 2935), (sym_path_expression, 2627), (sym_field_expression, 2373),
     (sym_index_expression, 2373), (sym_ladder_diagram, 7970), (sym_fb_diagram, 7970),
     (aux_sym_ERR_fb_variables_after_method_repeat1, 2347), (aux_sym_func_decl_repeat1, 7194),
     (aux_sym_fb_decl_repeat3, 789), (aux_sym_SFC_repeat1, 7612), (aux_sym_stmt_list_repeat1, 2024),
     (aux_sym_ladder_diagram_repeat1, 8009), (aux_sym_fb_diagram_repeat1, 8013),
     (sym_identifier, 298), (aux_sym_ERR_unexpected_this_in_path_token1, 304),
     (aux_sym_ERR_unexpected_super_in_path_token1, 306), (sym_line_comment, 3),
     (anon_sym_LBRACE, 308), (aux_sym_test_pragma_token1, 9), (aux_sym_once_pragma_token1, 11),
     (aux_sym_must_call_pragma_token1, 13), (aux_sym_export_pragma_token1, 15),
     (anon_sym_SEMI, 310), (anon_sym_PERCENT, 312), (aux_sym_input_decls_token1, 314),
     (aux_sym_output_decls_token1, 316), (aux_sym_in_out_decls_token1, 318),
     (aux_sym_var_decls_token1, 320), (aux_sym_temp_var_decls_token1, 322),
     (aux_sym_external_var_decls_token1, 324), (aux_sym_global_var_decls_token1, 326),
     (aux_sym_fb_decl_token4, 1740), (aux_sym_method_decl_token1, 330),
     (aux_sym_prog_access_decls_token1, 332), (aux_sym_initial_step_token1, 334),
     (aux_sym_config_init_token1, 336), (aux_sym__stmt_token1, 340), (aux_sym__stmt_token2, 340),
     (aux_sym__stmt_token3, 340), (aux_sym_if_stmt_token1, 342), (aux_sym_case_stmt_token1, 344),
     (aux_sym_for_stmt_token1, 346), (aux_sym_while_stmt_token1, 348),
     (aux_sym_repeat_stmt_token1, 350), (aux_sym_raise_stmt_token1, 352),
     (aux_sym_try_stmt_token1, 354), (aux_sym_try_stmt_token2, 356),
     (aux_sym_catch_clause_token1, 356), (aux_sym_finally_clause_token1, 356), (sym_ld_rung, 358),
     (sym_fbd_network, 360), (sym_c_style_comment, 3), (sym_pascal_style_comment, 3),
     (sym_pragma, 3)]"

lemma ts_parse_row_705_scan: "row_scan tokens_63_2 0 ts_parse_row_705 = Some (Suc (Suc (Suc (Suc 0))))"
  unfolding ts_parse_row_705_def by simp

text \<open>Lines 134987 to 135099.\<close>

definition ts_parse_row_706 :: parse_row where
  "ts_parse_row_706 =
    [(sym_ERR_assign_func_call, 7530), (sym_ERR_unexpected_this_in_path, 2372),
     (sym_ERR_unexpected_super_in_path, 2372), (sym_ERR_fb_variables_after_method, 1824),
     (sym_ERR_var_access_not_allowed, 3160), (sym_ERR_var_config_not_allowed, 3160),
     (sym_ERR_var_global_not_allowed, 3160), (sym_ERR_method_decl_in_body, 3150),
     (sym_extern_pragma, 7490), (sym_wasm_pragma, 3150), (sym_warn_pragma, 7490),
     (sym_allow_pragma, 3140), (sym_test_pragma, 7490), (sym_once_pragma, 7490),
     (sym_must_call_pragma, 7490), (sym_export_pragma, 7490), (sym_pou_pragma, 7194),
     (sym_direct_variable, 7675), (sym_deref_expression, 2373), (sym_variable, 7599),
     (sym_var_access, 2373), (sym_in_out_decls, 3160), (sym_var_decls, 3160),
     (sym_retain_var_decls, 3160), (sym_temp_var_decls, 3160), (sym_external_var_decls, 3160),
     (sym_global_var_decls, 2947), (sym_loc_partly_var_decl, 3160), (sym__fb_variables, 2343),
     (sym_fb_input_decls, 3160), (sym_fb_output_decls, 3160), (sym_no_retain_var_decls, 3160),
     (sym_fb_body, 9489), (sym_method_decl, 2549), (sym_prog_access_decls, 3043), (sym_SFC, 7970),
     (sym_SFC_network, 7612), (sym_initial_step, 7439), (sym_config_init, 3047),
     (sym_variable_access, 7530), (sym_func_call, 2961), (sym_stmt_list, 7970), (sym__stmt, 2024),
     (sym_assign, 3150), (sym_if_stmt, 3150), (sym_case_stmt, 3150), (sym_for_stmt, 3150),
     (sym_while_stmt, 3150), (sym_repeat_stmt, 3150), (sym_raise_stmt, 3150), (sym_try_stmt, 3150),
     (sym_ERR_clause_outside_try, 3150), (sym_begin_path_expression, 2943), (sym_invocation, 2934),
     (sym_any_invocation, 2935), (sym_this_invocation, 2641), (sym_super_invocation, 2641),
     (sym_super_body_invocation, 2935), (sym_path_expression, 2627), (sym_field_expression, 2373),
     (sym_index_expression, 2373), (sym_ladder_diagram, 7970), (sym_fb_diagram, 7970),
     (aux_sym_ERR_fb_variables_after_method_repeat1, 2343), (aux_sym_func_decl_repeat1, 7194),
     (aux_sym_fb_decl_repeat3, 2549), (aux_sym_SFC_repeat1, 7612),
     (aux_sym_stmt_list_repeat1, 2024), (aux_sym_ladder_diagram_repeat1, 8009),
     (aux_sym_fb_diagram_repeat1, 8013), (sym_identifier, 298),
     (aux_sym_ERR_unexpected_this_in_path_token1, 304),
     (aux_sym_ERR_unexpected_super_in_path_token1, 306), (sym_line_comment, 3),
     (anon_sym_LBRACE, 308), (aux_sym_test_pragma_token1, 9), (aux_sym_once_pragma_token1, 11),
     (aux_sym_must_call_pragma_token1, 13), (aux_sym_export_pragma_token1, 15),
     (anon_sym_SEMI, 310), (anon_sym_PERCENT, 312), (aux_sym_input_decls_token1, 314),
     (aux_sym_output_decls_token1, 316), (aux_sym_in_out_decls_token1, 318),
     (aux_sym_var_decls_token1, 320), (aux_sym_temp_var_decls_token1, 322),
     (aux_sym_external_var_decls_token1, 324), (aux_sym_global_var_decls_token1, 326),
     (aux_sym_fb_decl_token4, 1742), (aux_sym_method_decl_token1, 330),
     (aux_sym_prog_access_decls_token1, 332), (aux_sym_initial_step_token1, 334),
     (aux_sym_config_init_token1, 336), (aux_sym__stmt_token1, 340), (aux_sym__stmt_token2, 340),
     (aux_sym__stmt_token3, 340), (aux_sym_if_stmt_token1, 342), (aux_sym_case_stmt_token1, 344),
     (aux_sym_for_stmt_token1, 346), (aux_sym_while_stmt_token1, 348),
     (aux_sym_repeat_stmt_token1, 350), (aux_sym_raise_stmt_token1, 352),
     (aux_sym_try_stmt_token1, 354), (aux_sym_try_stmt_token2, 356),
     (aux_sym_catch_clause_token1, 356), (aux_sym_finally_clause_token1, 356), (sym_ld_rung, 358),
     (sym_fbd_network, 360), (sym_c_style_comment, 3), (sym_pascal_style_comment, 3),
     (sym_pragma, 3)]"

lemma ts_parse_row_706_scan: "row_scan tokens_63_2 0 ts_parse_row_706 = Some (Suc (Suc (Suc (Suc 0))))"
  unfolding ts_parse_row_706_def by simp

text \<open>Lines 135100 to 135212.\<close>

definition ts_parse_row_707 :: parse_row where
  "ts_parse_row_707 =
    [(sym_ERR_assign_func_call, 7530), (sym_ERR_unexpected_this_in_path, 2372),
     (sym_ERR_unexpected_super_in_path, 2372), (sym_ERR_fb_variables_after_method, 1680),
     (sym_ERR_var_access_not_allowed, 3160), (sym_ERR_var_config_not_allowed, 3160),
     (sym_ERR_var_global_not_allowed, 3160), (sym_ERR_method_decl_in_body, 3150),
     (sym_extern_pragma, 7490), (sym_wasm_pragma, 3150), (sym_warn_pragma, 7490),
     (sym_allow_pragma, 3140), (sym_test_pragma, 7490), (sym_once_pragma, 7490),
     (sym_must_call_pragma, 7490), (sym_export_pragma, 7490), (sym_pou_pragma, 7194),
     (sym_direct_variable, 7675), (sym_deref_expression, 2373), (sym_variable, 7599),
     (sym_var_access, 2373), (sym_in_out_decls, 3160), (sym_var_decls, 3160),
     (sym_retain_var_decls, 3160), (sym_temp_var_decls, 3160), (sym_external_var_decls, 3160),
     (sym_global_var_decls, 2947), (sym_loc_partly_var_decl, 3160), (sym__fb_variables, 2343),
     (sym_fb_input_decls, 3160), (sym_fb_output_decls, 3160), (sym_no_retain_var_decls, 3160),
     (sym_fb_body, 9942), (sym_method_decl, 2549), (sym_prog_access_decls, 3043), (sym_SFC, 7970),
     (sym_SFC_network, 7612), (sym_initial_step, 7439), (sym_config_init, 3047),
     (sym_variable_access, 7530), (sym_func_call, 2961), (sym_stmt_list, 7970), (sym__stmt, 2024),
     (sym_assign, 3150), (sym_if_stmt, 3150), (sym_case_stmt, 3150), (sym_for_stmt, 3150),
     (sym_while_stmt, 3150), (sym_repeat_stmt, 3150), (sym_raise_stmt, 3150), (sym_try_stmt, 3150),
     (sym_ERR_clause_outside_try, 3150), (sym_begin_path_expression, 2943), (sym_invocation, 2934),
     (sym_any_invocation, 2935), (sym_this_invocation, 2641), (sym_super_invocation, 2641),
     (sym_super_body_invocation, 2935), (sym_path_expression, 2627), (sym_field_expression, 2373),
     (sym_index_expression, 2373), (sym_ladder_diagram, 7970), (sym_fb_diagram, 7970),
     (aux_sym_ERR_fb_variables_after_method_repeat1, 2343), (aux_sym_func_decl_repeat1, 7194),
     (aux_sym_fb_decl_repeat3, 2549), (aux_sym_SFC_repeat1, 7612),
     (aux_sym_stmt_list_repeat1, 2024), (aux_sym_ladder_diagram_repeat1, 8009),
     (aux_sym_fb_diagram_repeat1, 8013), (sym_identifier, 298),
     (aux_sym_ERR_unexpected_this_in_path_token1, 304),
     (aux_sym_ERR_unexpected_super_in_path_token1, 306), (sym_line_comment, 3),
     (anon_sym_LBRACE, 308), (aux_sym_test_pragma_token1, 9), (aux_sym_once_pragma_token1, 11),
     (aux_sym_must_call_pragma_token1, 13), (aux_sym_export_pragma_token1, 15),
     (anon_sym_SEMI, 310), (anon_sym_PERCENT, 312), (aux_sym_input_decls_token1, 314),
     (aux_sym_output_decls_token1, 316), (aux_sym_in_out_decls_token1, 318),
     (aux_sym_var_decls_token1, 320), (aux_sym_temp_var_decls_token1, 322),
     (aux_sym_external_var_decls_token1, 324), (aux_sym_global_var_decls_token1, 326),
     (aux_sym_fb_decl_token4, 1744), (aux_sym_method_decl_token1, 330),
     (aux_sym_prog_access_decls_token1, 332), (aux_sym_initial_step_token1, 334),
     (aux_sym_config_init_token1, 336), (aux_sym__stmt_token1, 340), (aux_sym__stmt_token2, 340),
     (aux_sym__stmt_token3, 340), (aux_sym_if_stmt_token1, 342), (aux_sym_case_stmt_token1, 344),
     (aux_sym_for_stmt_token1, 346), (aux_sym_while_stmt_token1, 348),
     (aux_sym_repeat_stmt_token1, 350), (aux_sym_raise_stmt_token1, 352),
     (aux_sym_try_stmt_token1, 354), (aux_sym_try_stmt_token2, 356),
     (aux_sym_catch_clause_token1, 356), (aux_sym_finally_clause_token1, 356), (sym_ld_rung, 358),
     (sym_fbd_network, 360), (sym_c_style_comment, 3), (sym_pascal_style_comment, 3),
     (sym_pragma, 3)]"

lemma ts_parse_row_707_scan: "row_scan tokens_63_2 0 ts_parse_row_707 = Some (Suc (Suc (Suc (Suc 0))))"
  unfolding ts_parse_row_707_def by simp

text \<open>Lines 135213 to 135325.\<close>

definition ts_parse_row_708 :: parse_row where
  "ts_parse_row_708 =
    [(sym_ERR_assign_func_call, 7530), (sym_ERR_unexpected_this_in_path, 2372),
     (sym_ERR_unexpected_super_in_path, 2372), (sym_ERR_fb_variables_after_method, 1681),
     (sym_ERR_var_access_not_allowed, 3160), (sym_ERR_var_config_not_allowed, 3160),
     (sym_ERR_var_global_not_allowed, 3160), (sym_ERR_method_decl_in_body, 3150),
     (sym_extern_pragma, 7490), (sym_wasm_pragma, 3150), (sym_warn_pragma, 7490),
     (sym_allow_pragma, 3140), (sym_test_pragma, 7490), (sym_once_pragma, 7490),
     (sym_must_call_pragma, 7490), (sym_export_pragma, 7490), (sym_pou_pragma, 7194),
     (sym_direct_variable, 7675), (sym_deref_expression, 2373), (sym_variable, 7599),
     (sym_var_access, 2373), (sym_in_out_decls, 3160), (sym_var_decls, 3160),
     (sym_retain_var_decls, 3160), (sym_temp_var_decls, 3160), (sym_external_var_decls, 3160),
     (sym_global_var_decls, 2947), (sym_loc_partly_var_decl, 3160), (sym__fb_variables, 2343),
     (sym_fb_input_decls, 3160), (sym_fb_output_decls, 3160), (sym_no_retain_var_decls, 3160),
     (sym_fb_body, 10046), (sym_method_decl, 2549), (sym_prog_access_decls, 3043), (sym_SFC, 7970),
     (sym_SFC_network, 7612), (sym_initial_step, 7439), (sym_config_init, 3047),
     (sym_variable_access, 7530), (sym_func_call, 2961), (sym_stmt_list, 7970), (sym__stmt, 2024),
     (sym_assign, 3150), (sym_if_stmt, 3150), (sym_case_stmt, 3150), (sym_for_stmt, 3150),
     (sym_while_stmt, 3150), (sym_repeat_stmt, 3150), (sym_raise_stmt, 3150), (sym_try_stmt, 3150),
     (sym_ERR_clause_outside_try, 3150), (sym_begin_path_expression, 2943), (sym_invocation, 2934),
     (sym_any_invocation, 2935), (sym_this_invocation, 2641), (sym_super_invocation, 2641),
     (sym_super_body_invocation, 2935), (sym_path_expression, 2627), (sym_field_expression, 2373),
     (sym_index_expression, 2373), (sym_ladder_diagram, 7970), (sym_fb_diagram, 7970),
     (aux_sym_ERR_fb_variables_after_method_repeat1, 2343), (aux_sym_func_decl_repeat1, 7194),
     (aux_sym_fb_decl_repeat3, 2549), (aux_sym_SFC_repeat1, 7612),
     (aux_sym_stmt_list_repeat1, 2024), (aux_sym_ladder_diagram_repeat1, 8009),
     (aux_sym_fb_diagram_repeat1, 8013), (sym_identifier, 298),
     (aux_sym_ERR_unexpected_this_in_path_token1, 304),
     (aux_sym_ERR_unexpected_super_in_path_token1, 306), (sym_line_comment, 3),
     (anon_sym_LBRACE, 308), (aux_sym_test_pragma_token1, 9), (aux_sym_once_pragma_token1, 11),
     (aux_sym_must_call_pragma_token1, 13), (aux_sym_export_pragma_token1, 15),
     (anon_sym_SEMI, 310), (anon_sym_PERCENT, 312), (aux_sym_input_decls_token1, 314),
     (aux_sym_output_decls_token1, 316), (aux_sym_in_out_decls_token1, 318),
     (aux_sym_var_decls_token1, 320), (aux_sym_temp_var_decls_token1, 322),
     (aux_sym_external_var_decls_token1, 324), (aux_sym_global_var_decls_token1, 326),
     (aux_sym_fb_decl_token4, 1746), (aux_sym_method_decl_token1, 330),
     (aux_sym_prog_access_decls_token1, 332), (aux_sym_initial_step_token1, 334),
     (aux_sym_config_init_token1, 336), (aux_sym__stmt_token1, 340), (aux_sym__stmt_token2, 340),
     (aux_sym__stmt_token3, 340), (aux_sym_if_stmt_token1, 342), (aux_sym_case_stmt_token1, 344),
     (aux_sym_for_stmt_token1, 346), (aux_sym_while_stmt_token1, 348),
     (aux_sym_repeat_stmt_token1, 350), (aux_sym_raise_stmt_token1, 352),
     (aux_sym_try_stmt_token1, 354), (aux_sym_try_stmt_token2, 356),
     (aux_sym_catch_clause_token1, 356), (aux_sym_finally_clause_token1, 356), (sym_ld_rung, 358),
     (sym_fbd_network, 360), (sym_c_style_comment, 3), (sym_pascal_style_comment, 3),
     (sym_pragma, 3)]"

lemma ts_parse_row_708_scan: "row_scan tokens_63_2 0 ts_parse_row_708 = Some (Suc (Suc (Suc (Suc 0))))"
  unfolding ts_parse_row_708_def by simp

text \<open>Lines 135326 to 135438.\<close>

definition ts_parse_row_709 :: parse_row where
  "ts_parse_row_709 =
    [(sym_ERR_assign_func_call, 7530), (sym_ERR_unexpected_this_in_path, 2372),
     (sym_ERR_unexpected_super_in_path, 2372), (sym_ERR_fb_variables_after_method, 1682),
     (sym_ERR_var_access_not_allowed, 3160), (sym_ERR_var_config_not_allowed, 3160),
     (sym_ERR_var_global_not_allowed, 3160), (sym_ERR_method_decl_in_body, 3150),
     (sym_extern_pragma, 7490), (sym_wasm_pragma, 3150), (sym_warn_pragma, 7490),
     (sym_allow_pragma, 3140), (sym_test_pragma, 7490), (sym_once_pragma, 7490),
     (sym_must_call_pragma, 7490), (sym_export_pragma, 7490), (sym_pou_pragma, 7194),
     (sym_direct_variable, 7675), (sym_deref_expression, 2373), (sym_variable, 7599),
     (sym_var_access, 2373), (sym_in_out_decls, 3160), (sym_var_decls, 3160),
     (sym_retain_var_decls, 3160), (sym_temp_var_decls, 3160), (sym_external_var_decls, 3160),
     (sym_global_var_decls, 2947), (sym_loc_partly_var_decl, 3160), (sym__fb_variables, 2343),
     (sym_fb_input_decls, 3160), (sym_fb_output_decls, 3160), (sym_no_retain_var_decls, 3160),
     (sym_fb_body, 10292), (sym_method_decl, 2549), (sym_prog_access_decls, 3043), (sym_SFC, 7970),
     (sym_SFC_network, 7612), (sym_initial_step, 7439), (sym_config_init, 3047),
     (sym_variable_access, 7530), (sym_func_call, 2961), (sym_stmt_list, 7970), (sym__stmt, 2024),
     (sym_assign, 3150), (sym_if_stmt, 3150), (sym_case_stmt, 3150), (sym_for_stmt, 3150),
     (sym_while_stmt, 3150), (sym_repeat_stmt, 3150), (sym_raise_stmt, 3150), (sym_try_stmt, 3150),
     (sym_ERR_clause_outside_try, 3150), (sym_begin_path_expression, 2943), (sym_invocation, 2934),
     (sym_any_invocation, 2935), (sym_this_invocation, 2641), (sym_super_invocation, 2641),
     (sym_super_body_invocation, 2935), (sym_path_expression, 2627), (sym_field_expression, 2373),
     (sym_index_expression, 2373), (sym_ladder_diagram, 7970), (sym_fb_diagram, 7970),
     (aux_sym_ERR_fb_variables_after_method_repeat1, 2343), (aux_sym_func_decl_repeat1, 7194),
     (aux_sym_fb_decl_repeat3, 2549), (aux_sym_SFC_repeat1, 7612),
     (aux_sym_stmt_list_repeat1, 2024), (aux_sym_ladder_diagram_repeat1, 8009),
     (aux_sym_fb_diagram_repeat1, 8013), (sym_identifier, 298),
     (aux_sym_ERR_unexpected_this_in_path_token1, 304),
     (aux_sym_ERR_unexpected_super_in_path_token1, 306), (sym_line_comment, 3),
     (anon_sym_LBRACE, 308), (aux_sym_test_pragma_token1, 9), (aux_sym_once_pragma_token1, 11),
     (aux_sym_must_call_pragma_token1, 13), (aux_sym_export_pragma_token1, 15),
     (anon_sym_SEMI, 310), (anon_sym_PERCENT, 312), (aux_sym_input_decls_token1, 314),
     (aux_sym_output_decls_token1, 316), (aux_sym_in_out_decls_token1, 318),
     (aux_sym_var_decls_token1, 320), (aux_sym_temp_var_decls_token1, 322),
     (aux_sym_external_var_decls_token1, 324), (aux_sym_global_var_decls_token1, 326),
     (aux_sym_fb_decl_token4, 1748), (aux_sym_method_decl_token1, 330),
     (aux_sym_prog_access_decls_token1, 332), (aux_sym_initial_step_token1, 334),
     (aux_sym_config_init_token1, 336), (aux_sym__stmt_token1, 340), (aux_sym__stmt_token2, 340),
     (aux_sym__stmt_token3, 340), (aux_sym_if_stmt_token1, 342), (aux_sym_case_stmt_token1, 344),
     (aux_sym_for_stmt_token1, 346), (aux_sym_while_stmt_token1, 348),
     (aux_sym_repeat_stmt_token1, 350), (aux_sym_raise_stmt_token1, 352),
     (aux_sym_try_stmt_token1, 354), (aux_sym_try_stmt_token2, 356),
     (aux_sym_catch_clause_token1, 356), (aux_sym_finally_clause_token1, 356), (sym_ld_rung, 358),
     (sym_fbd_network, 360), (sym_c_style_comment, 3), (sym_pascal_style_comment, 3),
     (sym_pragma, 3)]"

lemma ts_parse_row_709_scan: "row_scan tokens_63_2 0 ts_parse_row_709 = Some (Suc (Suc (Suc (Suc 0))))"
  unfolding ts_parse_row_709_def by simp

text \<open>Lines 135439 to 135551.\<close>

definition ts_parse_row_710 :: parse_row where
  "ts_parse_row_710 =
    [(sym_ERR_assign_func_call, 7530), (sym_ERR_unexpected_this_in_path, 2372),
     (sym_ERR_unexpected_super_in_path, 2372), (sym_ERR_fb_variables_after_method, 1683),
     (sym_ERR_var_access_not_allowed, 3160), (sym_ERR_var_config_not_allowed, 3160),
     (sym_ERR_var_global_not_allowed, 3160), (sym_ERR_method_decl_in_body, 3150),
     (sym_extern_pragma, 7490), (sym_wasm_pragma, 3150), (sym_warn_pragma, 7490),
     (sym_allow_pragma, 3140), (sym_test_pragma, 7490), (sym_once_pragma, 7490),
     (sym_must_call_pragma, 7490), (sym_export_pragma, 7490), (sym_pou_pragma, 7194),
     (sym_direct_variable, 7675), (sym_deref_expression, 2373), (sym_variable, 7599),
     (sym_var_access, 2373), (sym_in_out_decls, 3160), (sym_var_decls, 3160),
     (sym_retain_var_decls, 3160), (sym_temp_var_decls, 3160), (sym_external_var_decls, 3160),
     (sym_global_var_decls, 2947), (sym_loc_partly_var_decl, 3160), (sym__fb_variables, 2343),
     (sym_fb_input_decls, 3160), (sym_fb_output_decls, 3160), (sym_no_retain_var_decls, 3160),
     (sym_fb_body, 8216), (sym_method_decl, 2549), (sym_prog_access_decls, 3043), (sym_SFC, 7970),
     (sym_SFC_network, 7612), (sym_initial_step, 7439), (sym_config_init, 3047),
     (sym_variable_access, 7530), (sym_func_call, 2961), (sym_stmt_list, 7970), (sym__stmt, 2024),
     (sym_assign, 3150), (sym_if_stmt, 3150), (sym_case_stmt, 3150), (sym_for_stmt, 3150),
     (sym_while_stmt, 3150), (sym_repeat_stmt, 3150), (sym_raise_stmt, 3150), (sym_try_stmt, 3150),
     (sym_ERR_clause_outside_try, 3150), (sym_begin_path_expression, 2943), (sym_invocation, 2934),
     (sym_any_invocation, 2935), (sym_this_invocation, 2641), (sym_super_invocation, 2641),
     (sym_super_body_invocation, 2935), (sym_path_expression, 2627), (sym_field_expression, 2373),
     (sym_index_expression, 2373), (sym_ladder_diagram, 7970), (sym_fb_diagram, 7970),
     (aux_sym_ERR_fb_variables_after_method_repeat1, 2343), (aux_sym_func_decl_repeat1, 7194),
     (aux_sym_fb_decl_repeat3, 2549), (aux_sym_SFC_repeat1, 7612),
     (aux_sym_stmt_list_repeat1, 2024), (aux_sym_ladder_diagram_repeat1, 8009),
     (aux_sym_fb_diagram_repeat1, 8013), (sym_identifier, 298),
     (aux_sym_ERR_unexpected_this_in_path_token1, 304),
     (aux_sym_ERR_unexpected_super_in_path_token1, 306), (sym_line_comment, 3),
     (anon_sym_LBRACE, 308), (aux_sym_test_pragma_token1, 9), (aux_sym_once_pragma_token1, 11),
     (aux_sym_must_call_pragma_token1, 13), (aux_sym_export_pragma_token1, 15),
     (anon_sym_SEMI, 310), (anon_sym_PERCENT, 312), (aux_sym_input_decls_token1, 314),
     (aux_sym_output_decls_token1, 316), (aux_sym_in_out_decls_token1, 318),
     (aux_sym_var_decls_token1, 320), (aux_sym_temp_var_decls_token1, 322),
     (aux_sym_external_var_decls_token1, 324), (aux_sym_global_var_decls_token1, 326),
     (aux_sym_fb_decl_token4, 1750), (aux_sym_method_decl_token1, 330),
     (aux_sym_prog_access_decls_token1, 332), (aux_sym_initial_step_token1, 334),
     (aux_sym_config_init_token1, 336), (aux_sym__stmt_token1, 340), (aux_sym__stmt_token2, 340),
     (aux_sym__stmt_token3, 340), (aux_sym_if_stmt_token1, 342), (aux_sym_case_stmt_token1, 344),
     (aux_sym_for_stmt_token1, 346), (aux_sym_while_stmt_token1, 348),
     (aux_sym_repeat_stmt_token1, 350), (aux_sym_raise_stmt_token1, 352),
     (aux_sym_try_stmt_token1, 354), (aux_sym_try_stmt_token2, 356),
     (aux_sym_catch_clause_token1, 356), (aux_sym_finally_clause_token1, 356), (sym_ld_rung, 358),
     (sym_fbd_network, 360), (sym_c_style_comment, 3), (sym_pascal_style_comment, 3),
     (sym_pragma, 3)]"

lemma ts_parse_row_710_scan: "row_scan tokens_63_2 0 ts_parse_row_710 = Some (Suc (Suc (Suc (Suc 0))))"
  unfolding ts_parse_row_710_def by simp

text \<open>Lines 135552 to 135664.\<close>

definition ts_parse_row_711 :: parse_row where
  "ts_parse_row_711 =
    [(sym_ERR_assign_func_call, 7530), (sym_ERR_unexpected_this_in_path, 2372),
     (sym_ERR_unexpected_super_in_path, 2372), (sym_ERR_fb_variables_after_method, 1684),
     (sym_ERR_var_access_not_allowed, 3160), (sym_ERR_var_config_not_allowed, 3160),
     (sym_ERR_var_global_not_allowed, 3160), (sym_ERR_method_decl_in_body, 3150),
     (sym_extern_pragma, 7490), (sym_wasm_pragma, 3150), (sym_warn_pragma, 7490),
     (sym_allow_pragma, 3140), (sym_test_pragma, 7490), (sym_once_pragma, 7490),
     (sym_must_call_pragma, 7490), (sym_export_pragma, 7490), (sym_pou_pragma, 7194),
     (sym_direct_variable, 7675), (sym_deref_expression, 2373), (sym_variable, 7599),
     (sym_var_access, 2373), (sym_in_out_decls, 3160), (sym_var_decls, 3160),
     (sym_retain_var_decls, 3160), (sym_temp_var_decls, 3160), (sym_external_var_decls, 3160),
     (sym_global_var_decls, 2947), (sym_loc_partly_var_decl, 3160), (sym__fb_variables, 2347),
     (sym_fb_input_decls, 3160), (sym_fb_output_decls, 3160), (sym_no_retain_var_decls, 3160),
     (sym_fb_body, 8230), (sym_method_decl, 792), (sym_prog_access_decls, 3043), (sym_SFC, 7970),
     (sym_SFC_network, 7612), (sym_initial_step, 7439), (sym_config_init, 3047),
     (sym_variable_access, 7530), (sym_func_call, 2961), (sym_stmt_list, 7970), (sym__stmt, 2024),
     (sym_assign, 3150), (sym_if_stmt, 3150), (sym_case_stmt, 3150), (sym_for_stmt, 3150),
     (sym_while_stmt, 3150), (sym_repeat_stmt, 3150), (sym_raise_stmt, 3150), (sym_try_stmt, 3150),
     (sym_ERR_clause_outside_try, 3150), (sym_begin_path_expression, 2943), (sym_invocation, 2934),
     (sym_any_invocation, 2935), (sym_this_invocation, 2641), (sym_super_invocation, 2641),
     (sym_super_body_invocation, 2935), (sym_path_expression, 2627), (sym_field_expression, 2373),
     (sym_index_expression, 2373), (sym_ladder_diagram, 7970), (sym_fb_diagram, 7970),
     (aux_sym_ERR_fb_variables_after_method_repeat1, 2347), (aux_sym_func_decl_repeat1, 7194),
     (aux_sym_fb_decl_repeat3, 792), (aux_sym_SFC_repeat1, 7612), (aux_sym_stmt_list_repeat1, 2024),
     (aux_sym_ladder_diagram_repeat1, 8009), (aux_sym_fb_diagram_repeat1, 8013),
     (sym_identifier, 298), (aux_sym_ERR_unexpected_this_in_path_token1, 304),
     (aux_sym_ERR_unexpected_super_in_path_token1, 306), (sym_line_comment, 3),
     (anon_sym_LBRACE, 308), (aux_sym_test_pragma_token1, 9), (aux_sym_once_pragma_token1, 11),
     (aux_sym_must_call_pragma_token1, 13), (aux_sym_export_pragma_token1, 15),
     (anon_sym_SEMI, 310), (anon_sym_PERCENT, 312), (aux_sym_input_decls_token1, 314),
     (aux_sym_output_decls_token1, 316), (aux_sym_in_out_decls_token1, 318),
     (aux_sym_var_decls_token1, 320), (aux_sym_temp_var_decls_token1, 322),
     (aux_sym_external_var_decls_token1, 324), (aux_sym_global_var_decls_token1, 326),
     (aux_sym_fb_decl_token4, 1752), (aux_sym_method_decl_token1, 330),
     (aux_sym_prog_access_decls_token1, 332), (aux_sym_initial_step_token1, 334),
     (aux_sym_config_init_token1, 336), (aux_sym__stmt_token1, 340), (aux_sym__stmt_token2, 340),
     (aux_sym__stmt_token3, 340), (aux_sym_if_stmt_token1, 342), (aux_sym_case_stmt_token1, 344),
     (aux_sym_for_stmt_token1, 346), (aux_sym_while_stmt_token1, 348),
     (aux_sym_repeat_stmt_token1, 350), (aux_sym_raise_stmt_token1, 352),
     (aux_sym_try_stmt_token1, 354), (aux_sym_try_stmt_token2, 356),
     (aux_sym_catch_clause_token1, 356), (aux_sym_finally_clause_token1, 356), (sym_ld_rung, 358),
     (sym_fbd_network, 360), (sym_c_style_comment, 3), (sym_pascal_style_comment, 3),
     (sym_pragma, 3)]"

lemma ts_parse_row_711_scan: "row_scan tokens_63_2 0 ts_parse_row_711 = Some (Suc (Suc (Suc (Suc 0))))"
  unfolding ts_parse_row_711_def by simp

text \<open>Lines 135665 to 135777.\<close>

definition ts_parse_row_712 :: parse_row where
  "ts_parse_row_712 =
    [(sym_ERR_assign_func_call, 7530), (sym_ERR_unexpected_this_in_path, 2372),
     (sym_ERR_unexpected_super_in_path, 2372), (sym_ERR_fb_variables_after_method, 1686),
     (sym_ERR_var_access_not_allowed, 3160), (sym_ERR_var_config_not_allowed, 3160),
     (sym_ERR_var_global_not_allowed, 3160), (sym_ERR_method_decl_in_body, 3150),
     (sym_extern_pragma, 7490), (sym_wasm_pragma, 3150), (sym_warn_pragma, 7490),
     (sym_allow_pragma, 3140), (sym_test_pragma, 7490), (sym_once_pragma, 7490),
     (sym_must_call_pragma, 7490), (sym_export_pragma, 7490), (sym_pou_pragma, 7194),
     (sym_direct_variable, 7675), (sym_deref_expression, 2373), (sym_variable, 7599),
     (sym_var_access, 2373), (sym_in_out_decls, 3160), (sym_var_decls, 3160),
     (sym_retain_var_decls, 3160), (sym_temp_var_decls, 3160), (sym_external_var_decls, 3160),
     (sym_global_var_decls, 2947), (sym_loc_partly_var_decl, 3160), (sym__fb_variables, 2343),
     (sym_fb_input_decls, 3160), (sym_fb_output_decls, 3160), (sym_no_retain_var_decls, 3160),
     (sym_fb_body, 8254), (sym_method_decl, 2549), (sym_prog_access_decls, 3043), (sym_SFC, 7970),
     (sym_SFC_network, 7612), (sym_initial_step, 7439), (sym_config_init, 3047),
     (sym_variable_access, 7530), (sym_func_call, 2961), (sym_stmt_list, 7970), (sym__stmt, 2024),
     (sym_assign, 3150), (sym_if_stmt, 3150), (sym_case_stmt, 3150), (sym_for_stmt, 3150),
     (sym_while_stmt, 3150), (sym_repeat_stmt, 3150), (sym_raise_stmt, 3150), (sym_try_stmt, 3150),
     (sym_ERR_clause_outside_try, 3150), (sym_begin_path_expression, 2943), (sym_invocation, 2934),
     (sym_any_invocation, 2935), (sym_this_invocation, 2641), (sym_super_invocation, 2641),
     (sym_super_body_invocation, 2935), (sym_path_expression, 2627), (sym_field_expression, 2373),
     (sym_index_expression, 2373), (sym_ladder_diagram, 7970), (sym_fb_diagram, 7970),
     (aux_sym_ERR_fb_variables_after_method_repeat1, 2343), (aux_sym_func_decl_repeat1, 7194),
     (aux_sym_fb_decl_repeat3, 2549), (aux_sym_SFC_repeat1, 7612),
     (aux_sym_stmt_list_repeat1, 2024), (aux_sym_ladder_diagram_repeat1, 8009),
     (aux_sym_fb_diagram_repeat1, 8013), (sym_identifier, 298),
     (aux_sym_ERR_unexpected_this_in_path_token1, 304),
     (aux_sym_ERR_unexpected_super_in_path_token1, 306), (sym_line_comment, 3),
     (anon_sym_LBRACE, 308), (aux_sym_test_pragma_token1, 9), (aux_sym_once_pragma_token1, 11),
     (aux_sym_must_call_pragma_token1, 13), (aux_sym_export_pragma_token1, 15),
     (anon_sym_SEMI, 310), (anon_sym_PERCENT, 312), (aux_sym_input_decls_token1, 314),
     (aux_sym_output_decls_token1, 316), (aux_sym_in_out_decls_token1, 318),
     (aux_sym_var_decls_token1, 320), (aux_sym_temp_var_decls_token1, 322),
     (aux_sym_external_var_decls_token1, 324), (aux_sym_global_var_decls_token1, 326),
     (aux_sym_fb_decl_token4, 1754), (aux_sym_method_decl_token1, 330),
     (aux_sym_prog_access_decls_token1, 332), (aux_sym_initial_step_token1, 334),
     (aux_sym_config_init_token1, 336), (aux_sym__stmt_token1, 340), (aux_sym__stmt_token2, 340),
     (aux_sym__stmt_token3, 340), (aux_sym_if_stmt_token1, 342), (aux_sym_case_stmt_token1, 344),
     (aux_sym_for_stmt_token1, 346), (aux_sym_while_stmt_token1, 348),
     (aux_sym_repeat_stmt_token1, 350), (aux_sym_raise_stmt_token1, 352),
     (aux_sym_try_stmt_token1, 354), (aux_sym_try_stmt_token2, 356),
     (aux_sym_catch_clause_token1, 356), (aux_sym_finally_clause_token1, 356), (sym_ld_rung, 358),
     (sym_fbd_network, 360), (sym_c_style_comment, 3), (sym_pascal_style_comment, 3),
     (sym_pragma, 3)]"

lemma ts_parse_row_712_scan: "row_scan tokens_63_2 0 ts_parse_row_712 = Some (Suc (Suc (Suc (Suc 0))))"
  unfolding ts_parse_row_712_def by simp

text \<open>Lines 135778 to 135890.\<close>

definition ts_parse_row_713 :: parse_row where
  "ts_parse_row_713 =
    [(sym_ERR_assign_func_call, 7530), (sym_ERR_unexpected_this_in_path, 2372),
     (sym_ERR_unexpected_super_in_path, 2372), (sym_ERR_fb_variables_after_method, 1687),
     (sym_ERR_var_access_not_allowed, 3160), (sym_ERR_var_config_not_allowed, 3160),
     (sym_ERR_var_global_not_allowed, 3160), (sym_ERR_method_decl_in_body, 3150),
     (sym_extern_pragma, 7490), (sym_wasm_pragma, 3150), (sym_warn_pragma, 7490),
     (sym_allow_pragma, 3140), (sym_test_pragma, 7490), (sym_once_pragma, 7490),
     (sym_must_call_pragma, 7490), (sym_export_pragma, 7490), (sym_pou_pragma, 7194),
     (sym_direct_variable, 7675), (sym_deref_expression, 2373), (sym_variable, 7599),
     (sym_var_access, 2373), (sym_in_out_decls, 3160), (sym_var_decls, 3160),
     (sym_retain_var_decls, 3160), (sym_temp_var_decls, 3160), (sym_external_var_decls, 3160),
     (sym_global_var_decls, 2947), (sym_loc_partly_var_decl, 3160), (sym__fb_variables, 2343),
     (sym_fb_input_decls, 3160), (sym_fb_output_decls, 3160), (sym_no_retain_var_decls, 3160),
     (sym_fb_body, 8311), (sym_method_decl, 2549), (sym_prog_access_decls, 3043), (sym_SFC, 7970),
     (sym_SFC_network, 7612), (sym_initial_step, 7439), (sym_config_init, 3047),
     (sym_variable_access, 7530), (sym_func_call, 2961), (sym_stmt_list, 7970), (sym__stmt, 2024),
     (sym_assign, 3150), (sym_if_stmt, 3150), (sym_case_stmt, 3150), (sym_for_stmt, 3150),
     (sym_while_stmt, 3150), (sym_repeat_stmt, 3150), (sym_raise_stmt, 3150), (sym_try_stmt, 3150),
     (sym_ERR_clause_outside_try, 3150), (sym_begin_path_expression, 2943), (sym_invocation, 2934),
     (sym_any_invocation, 2935), (sym_this_invocation, 2641), (sym_super_invocation, 2641),
     (sym_super_body_invocation, 2935), (sym_path_expression, 2627), (sym_field_expression, 2373),
     (sym_index_expression, 2373), (sym_ladder_diagram, 7970), (sym_fb_diagram, 7970),
     (aux_sym_ERR_fb_variables_after_method_repeat1, 2343), (aux_sym_func_decl_repeat1, 7194),
     (aux_sym_fb_decl_repeat3, 2549), (aux_sym_SFC_repeat1, 7612),
     (aux_sym_stmt_list_repeat1, 2024), (aux_sym_ladder_diagram_repeat1, 8009),
     (aux_sym_fb_diagram_repeat1, 8013), (sym_identifier, 298),
     (aux_sym_ERR_unexpected_this_in_path_token1, 304),
     (aux_sym_ERR_unexpected_super_in_path_token1, 306), (sym_line_comment, 3),
     (anon_sym_LBRACE, 308), (aux_sym_test_pragma_token1, 9), (aux_sym_once_pragma_token1, 11),
     (aux_sym_must_call_pragma_token1, 13), (aux_sym_export_pragma_token1, 15),
     (anon_sym_SEMI, 310), (anon_sym_PERCENT, 312), (aux_sym_input_decls_token1, 314),
     (aux_sym_output_decls_token1, 316), (aux_sym_in_out_decls_token1, 318),
     (aux_sym_var_decls_token1, 320), (aux_sym_temp_var_decls_token1, 322),
     (aux_sym_external_var_decls_token1, 324), (aux_sym_global_var_decls_token1, 326),
     (aux_sym_fb_decl_token4, 1756), (aux_sym_method_decl_token1, 330),
     (aux_sym_prog_access_decls_token1, 332), (aux_sym_initial_step_token1, 334),
     (aux_sym_config_init_token1, 336), (aux_sym__stmt_token1, 340), (aux_sym__stmt_token2, 340),
     (aux_sym__stmt_token3, 340), (aux_sym_if_stmt_token1, 342), (aux_sym_case_stmt_token1, 344),
     (aux_sym_for_stmt_token1, 346), (aux_sym_while_stmt_token1, 348),
     (aux_sym_repeat_stmt_token1, 350), (aux_sym_raise_stmt_token1, 352),
     (aux_sym_try_stmt_token1, 354), (aux_sym_try_stmt_token2, 356),
     (aux_sym_catch_clause_token1, 356), (aux_sym_finally_clause_token1, 356), (sym_ld_rung, 358),
     (sym_fbd_network, 360), (sym_c_style_comment, 3), (sym_pascal_style_comment, 3),
     (sym_pragma, 3)]"

lemma ts_parse_row_713_scan: "row_scan tokens_63_2 0 ts_parse_row_713 = Some (Suc (Suc (Suc (Suc 0))))"
  unfolding ts_parse_row_713_def by simp

text \<open>Lines 135891 to 136003.\<close>

definition ts_parse_row_714 :: parse_row where
  "ts_parse_row_714 =
    [(sym_ERR_assign_func_call, 7530), (sym_ERR_unexpected_this_in_path, 2372),
     (sym_ERR_unexpected_super_in_path, 2372), (sym_ERR_fb_variables_after_method, 1688),
     (sym_ERR_var_access_not_allowed, 3160), (sym_ERR_var_config_not_allowed, 3160),
     (sym_ERR_var_global_not_allowed, 3160), (sym_ERR_method_decl_in_body, 3150),
     (sym_extern_pragma, 7490), (sym_wasm_pragma, 3150), (sym_warn_pragma, 7490),
     (sym_allow_pragma, 3140), (sym_test_pragma, 7490), (sym_once_pragma, 7490),
     (sym_must_call_pragma, 7490), (sym_export_pragma, 7490), (sym_pou_pragma, 7194),
     (sym_direct_variable, 7675), (sym_deref_expression, 2373), (sym_variable, 7599),
     (sym_var_access, 2373), (sym_in_out_decls, 3160), (sym_var_decls, 3160),
     (sym_retain_var_decls, 3160), (sym_temp_var_decls, 3160), (sym_external_var_decls, 3160),
     (sym_global_var_decls, 2947), (sym_loc_partly_var_decl, 3160), (sym__fb_variables, 2347),
     (sym_fb_input_decls, 3160), (sym_fb_output_decls, 3160), (sym_no_retain_var_decls, 3160),
     (sym_fb_body, 8336), (sym_method_decl, 793), (sym_prog_access_decls, 3043), (sym_SFC, 7970),
     (sym_SFC_network, 7612), (sym_initial_step, 7439), (sym_config_init, 3047),
     (sym_variable_access, 7530), (sym_func_call, 2961), (sym_stmt_list, 7970), (sym__stmt, 2024),
     (sym_assign, 3150), (sym_if_stmt, 3150), (sym_case_stmt, 3150), (sym_for_stmt, 3150),
     (sym_while_stmt, 3150), (sym_repeat_stmt, 3150), (sym_raise_stmt, 3150), (sym_try_stmt, 3150),
     (sym_ERR_clause_outside_try, 3150), (sym_begin_path_expression, 2943), (sym_invocation, 2934),
     (sym_any_invocation, 2935), (sym_this_invocation, 2641), (sym_super_invocation, 2641),
     (sym_super_body_invocation, 2935), (sym_path_expression, 2627), (sym_field_expression, 2373),
     (sym_index_expression, 2373), (sym_ladder_diagram, 7970), (sym_fb_diagram, 7970),
     (aux_sym_ERR_fb_variables_after_method_repeat1, 2347), (aux_sym_func_decl_repeat1, 7194),
     (aux_sym_fb_decl_repeat3, 793), (aux_sym_SFC_repeat1, 7612), (aux_sym_stmt_list_repeat1, 2024),
     (aux_sym_ladder_diagram_repeat1, 8009), (aux_sym_fb_diagram_repeat1, 8013),
     (sym_identifier, 298), (aux_sym_ERR_unexpected_this_in_path_token1, 304),
     (aux_sym_ERR_unexpected_super_in_path_token1, 306), (sym_line_comment, 3),
     (anon_sym_LBRACE, 308), (aux_sym_test_pragma_token1, 9), (aux_sym_once_pragma_token1, 11),
     (aux_sym_must_call_pragma_token1, 13), (aux_sym_export_pragma_token1, 15),
     (anon_sym_SEMI, 310), (anon_sym_PERCENT, 312), (aux_sym_input_decls_token1, 314),
     (aux_sym_output_decls_token1, 316), (aux_sym_in_out_decls_token1, 318),
     (aux_sym_var_decls_token1, 320), (aux_sym_temp_var_decls_token1, 322),
     (aux_sym_external_var_decls_token1, 324), (aux_sym_global_var_decls_token1, 326),
     (aux_sym_fb_decl_token4, 1758), (aux_sym_method_decl_token1, 330),
     (aux_sym_prog_access_decls_token1, 332), (aux_sym_initial_step_token1, 334),
     (aux_sym_config_init_token1, 336), (aux_sym__stmt_token1, 340), (aux_sym__stmt_token2, 340),
     (aux_sym__stmt_token3, 340), (aux_sym_if_stmt_token1, 342), (aux_sym_case_stmt_token1, 344),
     (aux_sym_for_stmt_token1, 346), (aux_sym_while_stmt_token1, 348),
     (aux_sym_repeat_stmt_token1, 350), (aux_sym_raise_stmt_token1, 352),
     (aux_sym_try_stmt_token1, 354), (aux_sym_try_stmt_token2, 356),
     (aux_sym_catch_clause_token1, 356), (aux_sym_finally_clause_token1, 356), (sym_ld_rung, 358),
     (sym_fbd_network, 360), (sym_c_style_comment, 3), (sym_pascal_style_comment, 3),
     (sym_pragma, 3)]"

lemma ts_parse_row_714_scan: "row_scan tokens_63_2 0 ts_parse_row_714 = Some (Suc (Suc (Suc (Suc 0))))"
  unfolding ts_parse_row_714_def by simp

text \<open>Lines 136004 to 136116.\<close>

definition ts_parse_row_715 :: parse_row where
  "ts_parse_row_715 =
    [(sym_ERR_assign_func_call, 7530), (sym_ERR_unexpected_this_in_path, 2372),
     (sym_ERR_unexpected_super_in_path, 2372), (sym_ERR_fb_variables_after_method, 1689),
     (sym_ERR_var_access_not_allowed, 3160), (sym_ERR_var_config_not_allowed, 3160),
     (sym_ERR_var_global_not_allowed, 3160), (sym_ERR_method_decl_in_body, 3150),
     (sym_extern_pragma, 7490), (sym_wasm_pragma, 3150), (sym_warn_pragma, 7490),
     (sym_allow_pragma, 3140), (sym_test_pragma, 7490), (sym_once_pragma, 7490),
     (sym_must_call_pragma, 7490), (sym_export_pragma, 7490), (sym_pou_pragma, 7194),
     (sym_direct_variable, 7675), (sym_deref_expression, 2373), (sym_variable, 7599),
     (sym_var_access, 2373), (sym_in_out_decls, 3160), (sym_var_decls, 3160),
     (sym_retain_var_decls, 3160), (sym_temp_var_decls, 3160), (sym_external_var_decls, 3160),
     (sym_global_var_decls, 2947), (sym_loc_partly_var_decl, 3160), (sym__fb_variables, 2343),
     (sym_fb_input_decls, 3160), (sym_fb_output_decls, 3160), (sym_no_retain_var_decls, 3160),
     (sym_fb_body, 8344), (sym_method_decl, 2549), (sym_prog_access_decls, 3043), (sym_SFC, 7970),
     (sym_SFC_network, 7612), (sym_initial_step, 7439), (sym_config_init, 3047),
     (sym_variable_access, 7530), (sym_func_call, 2961), (sym_stmt_list, 7970), (sym__stmt, 2024),
     (sym_assign, 3150), (sym_if_stmt, 3150), (sym_case_stmt, 3150), (sym_for_stmt, 3150),
     (sym_while_stmt, 3150), (sym_repeat_stmt, 3150), (sym_raise_stmt, 3150), (sym_try_stmt, 3150),
     (sym_ERR_clause_outside_try, 3150), (sym_begin_path_expression, 2943), (sym_invocation, 2934),
     (sym_any_invocation, 2935), (sym_this_invocation, 2641), (sym_super_invocation, 2641),
     (sym_super_body_invocation, 2935), (sym_path_expression, 2627), (sym_field_expression, 2373),
     (sym_index_expression, 2373), (sym_ladder_diagram, 7970), (sym_fb_diagram, 7970),
     (aux_sym_ERR_fb_variables_after_method_repeat1, 2343), (aux_sym_func_decl_repeat1, 7194),
     (aux_sym_fb_decl_repeat3, 2549), (aux_sym_SFC_repeat1, 7612),
     (aux_sym_stmt_list_repeat1, 2024), (aux_sym_ladder_diagram_repeat1, 8009),
     (aux_sym_fb_diagram_repeat1, 8013), (sym_identifier, 298),
     (aux_sym_ERR_unexpected_this_in_path_token1, 304),
     (aux_sym_ERR_unexpected_super_in_path_token1, 306), (sym_line_comment, 3),
     (anon_sym_LBRACE, 308), (aux_sym_test_pragma_token1, 9), (aux_sym_once_pragma_token1, 11),
     (aux_sym_must_call_pragma_token1, 13), (aux_sym_export_pragma_token1, 15),
     (anon_sym_SEMI, 310), (anon_sym_PERCENT, 312), (aux_sym_input_decls_token1, 314),
     (aux_sym_output_decls_token1, 316), (aux_sym_in_out_decls_token1, 318),
     (aux_sym_var_decls_token1, 320), (aux_sym_temp_var_decls_token1, 322),
     (aux_sym_external_var_decls_token1, 324), (aux_sym_global_var_decls_token1, 326),
     (aux_sym_fb_decl_token4, 1760), (aux_sym_method_decl_token1, 330),
     (aux_sym_prog_access_decls_token1, 332), (aux_sym_initial_step_token1, 334),
     (aux_sym_config_init_token1, 336), (aux_sym__stmt_token1, 340), (aux_sym__stmt_token2, 340),
     (aux_sym__stmt_token3, 340), (aux_sym_if_stmt_token1, 342), (aux_sym_case_stmt_token1, 344),
     (aux_sym_for_stmt_token1, 346), (aux_sym_while_stmt_token1, 348),
     (aux_sym_repeat_stmt_token1, 350), (aux_sym_raise_stmt_token1, 352),
     (aux_sym_try_stmt_token1, 354), (aux_sym_try_stmt_token2, 356),
     (aux_sym_catch_clause_token1, 356), (aux_sym_finally_clause_token1, 356), (sym_ld_rung, 358),
     (sym_fbd_network, 360), (sym_c_style_comment, 3), (sym_pascal_style_comment, 3),
     (sym_pragma, 3)]"

lemma ts_parse_row_715_scan: "row_scan tokens_63_2 0 ts_parse_row_715 = Some (Suc (Suc (Suc (Suc 0))))"
  unfolding ts_parse_row_715_def by simp

text \<open>Lines 136117 to 136229.\<close>

definition ts_parse_row_716 :: parse_row where
  "ts_parse_row_716 =
    [(sym_ERR_assign_func_call, 7530), (sym_ERR_unexpected_this_in_path, 2372),
     (sym_ERR_unexpected_super_in_path, 2372), (sym_ERR_fb_variables_after_method, 1690),
     (sym_ERR_var_access_not_allowed, 3160), (sym_ERR_var_config_not_allowed, 3160),
     (sym_ERR_var_global_not_allowed, 3160), (sym_ERR_method_decl_in_body, 3150),
     (sym_extern_pragma, 7490), (sym_wasm_pragma, 3150), (sym_warn_pragma, 7490),
     (sym_allow_pragma, 3140), (sym_test_pragma, 7490), (sym_once_pragma, 7490),
     (sym_must_call_pragma, 7490), (sym_export_pragma, 7490), (sym_pou_pragma, 7194),
     (sym_direct_variable, 7675), (sym_deref_expression, 2373), (sym_variable, 7599),
     (sym_var_access, 2373), (sym_in_out_decls, 3160), (sym_var_decls, 3160),
     (sym_retain_var_decls, 3160), (sym_temp_var_decls, 3160), (sym_external_var_decls, 3160),
     (sym_global_var_decls, 2947), (sym_loc_partly_var_decl, 3160), (sym__fb_variables, 2347),
     (sym_fb_input_decls, 3160), (sym_fb_output_decls, 3160), (sym_no_retain_var_decls, 3160),
     (sym_fb_body, 8358), (sym_method_decl, 794), (sym_prog_access_decls, 3043), (sym_SFC, 7970),
     (sym_SFC_network, 7612), (sym_initial_step, 7439), (sym_config_init, 3047),
     (sym_variable_access, 7530), (sym_func_call, 2961), (sym_stmt_list, 7970), (sym__stmt, 2024),
     (sym_assign, 3150), (sym_if_stmt, 3150), (sym_case_stmt, 3150), (sym_for_stmt, 3150),
     (sym_while_stmt, 3150), (sym_repeat_stmt, 3150), (sym_raise_stmt, 3150), (sym_try_stmt, 3150),
     (sym_ERR_clause_outside_try, 3150), (sym_begin_path_expression, 2943), (sym_invocation, 2934),
     (sym_any_invocation, 2935), (sym_this_invocation, 2641), (sym_super_invocation, 2641),
     (sym_super_body_invocation, 2935), (sym_path_expression, 2627), (sym_field_expression, 2373),
     (sym_index_expression, 2373), (sym_ladder_diagram, 7970), (sym_fb_diagram, 7970),
     (aux_sym_ERR_fb_variables_after_method_repeat1, 2347), (aux_sym_func_decl_repeat1, 7194),
     (aux_sym_fb_decl_repeat3, 794), (aux_sym_SFC_repeat1, 7612), (aux_sym_stmt_list_repeat1, 2024),
     (aux_sym_ladder_diagram_repeat1, 8009), (aux_sym_fb_diagram_repeat1, 8013),
     (sym_identifier, 298), (aux_sym_ERR_unexpected_this_in_path_token1, 304),
     (aux_sym_ERR_unexpected_super_in_path_token1, 306), (sym_line_comment, 3),
     (anon_sym_LBRACE, 308), (aux_sym_test_pragma_token1, 9), (aux_sym_once_pragma_token1, 11),
     (aux_sym_must_call_pragma_token1, 13), (aux_sym_export_pragma_token1, 15),
     (anon_sym_SEMI, 310), (anon_sym_PERCENT, 312), (aux_sym_input_decls_token1, 314),
     (aux_sym_output_decls_token1, 316), (aux_sym_in_out_decls_token1, 318),
     (aux_sym_var_decls_token1, 320), (aux_sym_temp_var_decls_token1, 322),
     (aux_sym_external_var_decls_token1, 324), (aux_sym_global_var_decls_token1, 326),
     (aux_sym_fb_decl_token4, 1762), (aux_sym_method_decl_token1, 330),
     (aux_sym_prog_access_decls_token1, 332), (aux_sym_initial_step_token1, 334),
     (aux_sym_config_init_token1, 336), (aux_sym__stmt_token1, 340), (aux_sym__stmt_token2, 340),
     (aux_sym__stmt_token3, 340), (aux_sym_if_stmt_token1, 342), (aux_sym_case_stmt_token1, 344),
     (aux_sym_for_stmt_token1, 346), (aux_sym_while_stmt_token1, 348),
     (aux_sym_repeat_stmt_token1, 350), (aux_sym_raise_stmt_token1, 352),
     (aux_sym_try_stmt_token1, 354), (aux_sym_try_stmt_token2, 356),
     (aux_sym_catch_clause_token1, 356), (aux_sym_finally_clause_token1, 356), (sym_ld_rung, 358),
     (sym_fbd_network, 360), (sym_c_style_comment, 3), (sym_pascal_style_comment, 3),
     (sym_pragma, 3)]"

lemma ts_parse_row_716_scan: "row_scan tokens_63_2 0 ts_parse_row_716 = Some (Suc (Suc (Suc (Suc 0))))"
  unfolding ts_parse_row_716_def by simp

text \<open>Lines 136230 to 136342.\<close>

definition ts_parse_row_717 :: parse_row where
  "ts_parse_row_717 =
    [(sym_ERR_assign_func_call, 7530), (sym_ERR_unexpected_this_in_path, 2372),
     (sym_ERR_unexpected_super_in_path, 2372), (sym_ERR_fb_variables_after_method, 1474),
     (sym_ERR_var_access_not_allowed, 3160), (sym_ERR_var_config_not_allowed, 3160),
     (sym_ERR_var_global_not_allowed, 3160), (sym_ERR_method_decl_in_body, 3150),
     (sym_extern_pragma, 7490), (sym_wasm_pragma, 3150), (sym_warn_pragma, 7490),
     (sym_allow_pragma, 3140), (sym_test_pragma, 7490), (sym_once_pragma, 7490),
     (sym_must_call_pragma, 7490), (sym_export_pragma, 7490), (sym_pou_pragma, 7194),
     (sym_direct_variable, 7675), (sym_deref_expression, 2373), (sym_variable, 7599),
     (sym_var_access, 2373), (sym_in_out_decls, 3160), (sym_var_decls, 3160),
     (sym_retain_var_decls, 3160), (sym_temp_var_decls, 3160), (sym_external_var_decls, 3160),
     (sym_global_var_decls, 2947), (sym_loc_partly_var_decl, 3160), (sym__fb_variables, 2343),
     (sym_fb_input_decls, 3160), (sym_fb_output_decls, 3160), (sym_no_retain_var_decls, 3160),
     (sym_fb_body, 9977), (sym_method_decl, 2549), (sym_prog_access_decls, 3043), (sym_SFC, 7970),
     (sym_SFC_network, 7612), (sym_initial_step, 7439), (sym_config_init, 3047),
     (sym_variable_access, 7530), (sym_func_call, 2961), (sym_stmt_list, 7970), (sym__stmt, 2024),
     (sym_assign, 3150), (sym_if_stmt, 3150), (sym_case_stmt, 3150), (sym_for_stmt, 3150),
     (sym_while_stmt, 3150), (sym_repeat_stmt, 3150), (sym_raise_stmt, 3150), (sym_try_stmt, 3150),
     (sym_ERR_clause_outside_try, 3150), (sym_begin_path_expression, 2943), (sym_invocation, 2934),
     (sym_any_invocation, 2935), (sym_this_invocation, 2641), (sym_super_invocation, 2641),
     (sym_super_body_invocation, 2935), (sym_path_expression, 2627), (sym_field_expression, 2373),
     (sym_index_expression, 2373), (sym_ladder_diagram, 7970), (sym_fb_diagram, 7970),
     (aux_sym_ERR_fb_variables_after_method_repeat1, 2343), (aux_sym_func_decl_repeat1, 7194),
     (aux_sym_fb_decl_repeat3, 2549), (aux_sym_SFC_repeat1, 7612),
     (aux_sym_stmt_list_repeat1, 2024), (aux_sym_ladder_diagram_repeat1, 8009),
     (aux_sym_fb_diagram_repeat1, 8013), (sym_identifier, 298),
     (aux_sym_ERR_unexpected_this_in_path_token1, 304),
     (aux_sym_ERR_unexpected_super_in_path_token1, 306), (sym_line_comment, 3),
     (anon_sym_LBRACE, 308), (aux_sym_test_pragma_token1, 9), (aux_sym_once_pragma_token1, 11),
     (aux_sym_must_call_pragma_token1, 13), (aux_sym_export_pragma_token1, 15),
     (anon_sym_SEMI, 310), (anon_sym_PERCENT, 312), (aux_sym_input_decls_token1, 314),
     (aux_sym_output_decls_token1, 316), (aux_sym_in_out_decls_token1, 318),
     (aux_sym_var_decls_token1, 320), (aux_sym_temp_var_decls_token1, 322),
     (aux_sym_external_var_decls_token1, 324), (aux_sym_global_var_decls_token1, 326),
     (aux_sym_fb_decl_token4, 1764), (aux_sym_method_decl_token1, 330),
     (aux_sym_prog_access_decls_token1, 332), (aux_sym_initial_step_token1, 334),
     (aux_sym_config_init_token1, 336), (aux_sym__stmt_token1, 340), (aux_sym__stmt_token2, 340),
     (aux_sym__stmt_token3, 340), (aux_sym_if_stmt_token1, 342), (aux_sym_case_stmt_token1, 344),
     (aux_sym_for_stmt_token1, 346), (aux_sym_while_stmt_token1, 348),
     (aux_sym_repeat_stmt_token1, 350), (aux_sym_raise_stmt_token1, 352),
     (aux_sym_try_stmt_token1, 354), (aux_sym_try_stmt_token2, 356),
     (aux_sym_catch_clause_token1, 356), (aux_sym_finally_clause_token1, 356), (sym_ld_rung, 358),
     (sym_fbd_network, 360), (sym_c_style_comment, 3), (sym_pascal_style_comment, 3),
     (sym_pragma, 3)]"

lemma ts_parse_row_717_scan: "row_scan tokens_63_2 0 ts_parse_row_717 = Some (Suc (Suc (Suc (Suc 0))))"
  unfolding ts_parse_row_717_def by simp

text \<open>Lines 136343 to 136455.\<close>

definition ts_parse_row_718 :: parse_row where
  "ts_parse_row_718 =
    [(sym_ERR_assign_func_call, 7530), (sym_ERR_unexpected_this_in_path, 2372),
     (sym_ERR_unexpected_super_in_path, 2372), (sym_ERR_fb_variables_after_method, 1694),
     (sym_ERR_var_access_not_allowed, 3160), (sym_ERR_var_config_not_allowed, 3160),
     (sym_ERR_var_global_not_allowed, 3160), (sym_ERR_method_decl_in_body, 3150),
     (sym_extern_pragma, 7490), (sym_wasm_pragma, 3150), (sym_warn_pragma, 7490),
     (sym_allow_pragma, 3140), (sym_test_pragma, 7490), (sym_once_pragma, 7490),
     (sym_must_call_pragma, 7490), (sym_export_pragma, 7490), (sym_pou_pragma, 7194),
     (sym_direct_variable, 7675), (sym_deref_expression, 2373), (sym_variable, 7599),
     (sym_var_access, 2373), (sym_in_out_decls, 3160), (sym_var_decls, 3160),
     (sym_retain_var_decls, 3160), (sym_temp_var_decls, 3160), (sym_external_var_decls, 3160),
     (sym_global_var_decls, 2947), (sym_loc_partly_var_decl, 3160), (sym__fb_variables, 2343),
     (sym_fb_input_decls, 3160), (sym_fb_output_decls, 3160), (sym_no_retain_var_decls, 3160),
     (sym_fb_body, 8391), (sym_method_decl, 2549), (sym_prog_access_decls, 3043), (sym_SFC, 7970),
     (sym_SFC_network, 7612), (sym_initial_step, 7439), (sym_config_init, 3047),
     (sym_variable_access, 7530), (sym_func_call, 2961), (sym_stmt_list, 7970), (sym__stmt, 2024),
     (sym_assign, 3150), (sym_if_stmt, 3150), (sym_case_stmt, 3150), (sym_for_stmt, 3150),
     (sym_while_stmt, 3150), (sym_repeat_stmt, 3150), (sym_raise_stmt, 3150), (sym_try_stmt, 3150),
     (sym_ERR_clause_outside_try, 3150), (sym_begin_path_expression, 2943), (sym_invocation, 2934),
     (sym_any_invocation, 2935), (sym_this_invocation, 2641), (sym_super_invocation, 2641),
     (sym_super_body_invocation, 2935), (sym_path_expression, 2627), (sym_field_expression, 2373),
     (sym_index_expression, 2373), (sym_ladder_diagram, 7970), (sym_fb_diagram, 7970),
     (aux_sym_ERR_fb_variables_after_method_repeat1, 2343), (aux_sym_func_decl_repeat1, 7194),
     (aux_sym_fb_decl_repeat3, 2549), (aux_sym_SFC_repeat1, 7612),
     (aux_sym_stmt_list_repeat1, 2024), (aux_sym_ladder_diagram_repeat1, 8009),
     (aux_sym_fb_diagram_repeat1, 8013), (sym_identifier, 298),
     (aux_sym_ERR_unexpected_this_in_path_token1, 304),
     (aux_sym_ERR_unexpected_super_in_path_token1, 306), (sym_line_comment, 3),
     (anon_sym_LBRACE, 308), (aux_sym_test_pragma_token1, 9), (aux_sym_once_pragma_token1, 11),
     (aux_sym_must_call_pragma_token1, 13), (aux_sym_export_pragma_token1, 15),
     (anon_sym_SEMI, 310), (anon_sym_PERCENT, 312), (aux_sym_input_decls_token1, 314),
     (aux_sym_output_decls_token1, 316), (aux_sym_in_out_decls_token1, 318),
     (aux_sym_var_decls_token1, 320), (aux_sym_temp_var_decls_token1, 322),
     (aux_sym_external_var_decls_token1, 324), (aux_sym_global_var_decls_token1, 326),
     (aux_sym_fb_decl_token4, 1766), (aux_sym_method_decl_token1, 330),
     (aux_sym_prog_access_decls_token1, 332), (aux_sym_initial_step_token1, 334),
     (aux_sym_config_init_token1, 336), (aux_sym__stmt_token1, 340), (aux_sym__stmt_token2, 340),
     (aux_sym__stmt_token3, 340), (aux_sym_if_stmt_token1, 342), (aux_sym_case_stmt_token1, 344),
     (aux_sym_for_stmt_token1, 346), (aux_sym_while_stmt_token1, 348),
     (aux_sym_repeat_stmt_token1, 350), (aux_sym_raise_stmt_token1, 352),
     (aux_sym_try_stmt_token1, 354), (aux_sym_try_stmt_token2, 356),
     (aux_sym_catch_clause_token1, 356), (aux_sym_finally_clause_token1, 356), (sym_ld_rung, 358),
     (sym_fbd_network, 360), (sym_c_style_comment, 3), (sym_pascal_style_comment, 3),
     (sym_pragma, 3)]"

lemma ts_parse_row_718_scan: "row_scan tokens_63_2 0 ts_parse_row_718 = Some (Suc (Suc (Suc (Suc 0))))"
  unfolding ts_parse_row_718_def by simp

text \<open>Lines 136456 to 136568.\<close>

definition ts_parse_row_719 :: parse_row where
  "ts_parse_row_719 =
    [(sym_ERR_assign_func_call, 7530), (sym_ERR_unexpected_this_in_path, 2372),
     (sym_ERR_unexpected_super_in_path, 2372), (sym_ERR_fb_variables_after_method, 1695),
     (sym_ERR_var_access_not_allowed, 3160), (sym_ERR_var_config_not_allowed, 3160),
     (sym_ERR_var_global_not_allowed, 3160), (sym_ERR_method_decl_in_body, 3150),
     (sym_extern_pragma, 7490), (sym_wasm_pragma, 3150), (sym_warn_pragma, 7490),
     (sym_allow_pragma, 3140), (sym_test_pragma, 7490), (sym_once_pragma, 7490),
     (sym_must_call_pragma, 7490), (sym_export_pragma, 7490), (sym_pou_pragma, 7194),
     (sym_direct_variable, 7675), (sym_deref_expression, 2373), (sym_variable, 7599),
     (sym_var_access, 2373), (sym_in_out_decls, 3160), (sym_var_decls, 3160),
     (sym_retain_var_decls, 3160), (sym_temp_var_decls, 3160), (sym_external_var_decls, 3160),
     (sym_global_var_decls, 2947), (sym_loc_partly_var_decl, 3160), (sym__fb_variables, 2343),
     (sym_fb_input_decls, 3160), (sym_fb_output_decls, 3160), (sym_no_retain_var_decls, 3160),
     (sym_fb_body, 8480), (sym_method_decl, 2549), (sym_prog_access_decls, 3043), (sym_SFC, 7970),
     (sym_SFC_network, 7612), (sym_initial_step, 7439), (sym_config_init, 3047),
     (sym_variable_access, 7530), (sym_func_call, 2961), (sym_stmt_list, 7970), (sym__stmt, 2024),
     (sym_assign, 3150), (sym_if_stmt, 3150), (sym_case_stmt, 3150), (sym_for_stmt, 3150),
     (sym_while_stmt, 3150), (sym_repeat_stmt, 3150), (sym_raise_stmt, 3150), (sym_try_stmt, 3150),
     (sym_ERR_clause_outside_try, 3150), (sym_begin_path_expression, 2943), (sym_invocation, 2934),
     (sym_any_invocation, 2935), (sym_this_invocation, 2641), (sym_super_invocation, 2641),
     (sym_super_body_invocation, 2935), (sym_path_expression, 2627), (sym_field_expression, 2373),
     (sym_index_expression, 2373), (sym_ladder_diagram, 7970), (sym_fb_diagram, 7970),
     (aux_sym_ERR_fb_variables_after_method_repeat1, 2343), (aux_sym_func_decl_repeat1, 7194),
     (aux_sym_fb_decl_repeat3, 2549), (aux_sym_SFC_repeat1, 7612),
     (aux_sym_stmt_list_repeat1, 2024), (aux_sym_ladder_diagram_repeat1, 8009),
     (aux_sym_fb_diagram_repeat1, 8013), (sym_identifier, 298),
     (aux_sym_ERR_unexpected_this_in_path_token1, 304),
     (aux_sym_ERR_unexpected_super_in_path_token1, 306), (sym_line_comment, 3),
     (anon_sym_LBRACE, 308), (aux_sym_test_pragma_token1, 9), (aux_sym_once_pragma_token1, 11),
     (aux_sym_must_call_pragma_token1, 13), (aux_sym_export_pragma_token1, 15),
     (anon_sym_SEMI, 310), (anon_sym_PERCENT, 312), (aux_sym_input_decls_token1, 314),
     (aux_sym_output_decls_token1, 316), (aux_sym_in_out_decls_token1, 318),
     (aux_sym_var_decls_token1, 320), (aux_sym_temp_var_decls_token1, 322),
     (aux_sym_external_var_decls_token1, 324), (aux_sym_global_var_decls_token1, 326),
     (aux_sym_fb_decl_token4, 1768), (aux_sym_method_decl_token1, 330),
     (aux_sym_prog_access_decls_token1, 332), (aux_sym_initial_step_token1, 334),
     (aux_sym_config_init_token1, 336), (aux_sym__stmt_token1, 340), (aux_sym__stmt_token2, 340),
     (aux_sym__stmt_token3, 340), (aux_sym_if_stmt_token1, 342), (aux_sym_case_stmt_token1, 344),
     (aux_sym_for_stmt_token1, 346), (aux_sym_while_stmt_token1, 348),
     (aux_sym_repeat_stmt_token1, 350), (aux_sym_raise_stmt_token1, 352),
     (aux_sym_try_stmt_token1, 354), (aux_sym_try_stmt_token2, 356),
     (aux_sym_catch_clause_token1, 356), (aux_sym_finally_clause_token1, 356), (sym_ld_rung, 358),
     (sym_fbd_network, 360), (sym_c_style_comment, 3), (sym_pascal_style_comment, 3),
     (sym_pragma, 3)]"

lemma ts_parse_row_719_scan: "row_scan tokens_63_2 0 ts_parse_row_719 = Some (Suc (Suc (Suc (Suc 0))))"
  unfolding ts_parse_row_719_def by simp

text \<open>Lines 136569 to 136681.\<close>

definition ts_parse_row_720 :: parse_row where
  "ts_parse_row_720 =
    [(sym_ERR_assign_func_call, 7530), (sym_ERR_unexpected_this_in_path, 2372),
     (sym_ERR_unexpected_super_in_path, 2372), (sym_ERR_fb_variables_after_method, 1696),
     (sym_ERR_var_access_not_allowed, 3160), (sym_ERR_var_config_not_allowed, 3160),
     (sym_ERR_var_global_not_allowed, 3160), (sym_ERR_method_decl_in_body, 3150),
     (sym_extern_pragma, 7490), (sym_wasm_pragma, 3150), (sym_warn_pragma, 7490),
     (sym_allow_pragma, 3140), (sym_test_pragma, 7490), (sym_once_pragma, 7490),
     (sym_must_call_pragma, 7490), (sym_export_pragma, 7490), (sym_pou_pragma, 7194),
     (sym_direct_variable, 7675), (sym_deref_expression, 2373), (sym_variable, 7599),
     (sym_var_access, 2373), (sym_in_out_decls, 3160), (sym_var_decls, 3160),
     (sym_retain_var_decls, 3160), (sym_temp_var_decls, 3160), (sym_external_var_decls, 3160),
     (sym_global_var_decls, 2947), (sym_loc_partly_var_decl, 3160), (sym__fb_variables, 2343),
     (sym_fb_input_decls, 3160), (sym_fb_output_decls, 3160), (sym_no_retain_var_decls, 3160),
     (sym_fb_body, 8570), (sym_method_decl, 2549), (sym_prog_access_decls, 3043), (sym_SFC, 7970),
     (sym_SFC_network, 7612), (sym_initial_step, 7439), (sym_config_init, 3047),
     (sym_variable_access, 7530), (sym_func_call, 2961), (sym_stmt_list, 7970), (sym__stmt, 2024),
     (sym_assign, 3150), (sym_if_stmt, 3150), (sym_case_stmt, 3150), (sym_for_stmt, 3150),
     (sym_while_stmt, 3150), (sym_repeat_stmt, 3150), (sym_raise_stmt, 3150), (sym_try_stmt, 3150),
     (sym_ERR_clause_outside_try, 3150), (sym_begin_path_expression, 2943), (sym_invocation, 2934),
     (sym_any_invocation, 2935), (sym_this_invocation, 2641), (sym_super_invocation, 2641),
     (sym_super_body_invocation, 2935), (sym_path_expression, 2627), (sym_field_expression, 2373),
     (sym_index_expression, 2373), (sym_ladder_diagram, 7970), (sym_fb_diagram, 7970),
     (aux_sym_ERR_fb_variables_after_method_repeat1, 2343), (aux_sym_func_decl_repeat1, 7194),
     (aux_sym_fb_decl_repeat3, 2549), (aux_sym_SFC_repeat1, 7612),
     (aux_sym_stmt_list_repeat1, 2024), (aux_sym_ladder_diagram_repeat1, 8009),
     (aux_sym_fb_diagram_repeat1, 8013), (sym_identifier, 298),
     (aux_sym_ERR_unexpected_this_in_path_token1, 304),
     (aux_sym_ERR_unexpected_super_in_path_token1, 306), (sym_line_comment, 3),
     (anon_sym_LBRACE, 308), (aux_sym_test_pragma_token1, 9), (aux_sym_once_pragma_token1, 11),
     (aux_sym_must_call_pragma_token1, 13), (aux_sym_export_pragma_token1, 15),
     (anon_sym_SEMI, 310), (anon_sym_PERCENT, 312), (aux_sym_input_decls_token1, 314),
     (aux_sym_output_decls_token1, 316), (aux_sym_in_out_decls_token1, 318),
     (aux_sym_var_decls_token1, 320), (aux_sym_temp_var_decls_token1, 322),
     (aux_sym_external_var_decls_token1, 324), (aux_sym_global_var_decls_token1, 326),
     (aux_sym_fb_decl_token4, 1770), (aux_sym_method_decl_token1, 330),
     (aux_sym_prog_access_decls_token1, 332), (aux_sym_initial_step_token1, 334),
     (aux_sym_config_init_token1, 336), (aux_sym__stmt_token1, 340), (aux_sym__stmt_token2, 340),
     (aux_sym__stmt_token3, 340), (aux_sym_if_stmt_token1, 342), (aux_sym_case_stmt_token1, 344),
     (aux_sym_for_stmt_token1, 346), (aux_sym_while_stmt_token1, 348),
     (aux_sym_repeat_stmt_token1, 350), (aux_sym_raise_stmt_token1, 352),
     (aux_sym_try_stmt_token1, 354), (aux_sym_try_stmt_token2, 356),
     (aux_sym_catch_clause_token1, 356), (aux_sym_finally_clause_token1, 356), (sym_ld_rung, 358),
     (sym_fbd_network, 360), (sym_c_style_comment, 3), (sym_pascal_style_comment, 3),
     (sym_pragma, 3)]"

lemma ts_parse_row_720_scan: "row_scan tokens_63_2 0 ts_parse_row_720 = Some (Suc (Suc (Suc (Suc 0))))"
  unfolding ts_parse_row_720_def by simp

text \<open>Lines 136682 to 136794.\<close>

definition ts_parse_row_721 :: parse_row where
  "ts_parse_row_721 =
    [(sym_ERR_assign_func_call, 7530), (sym_ERR_unexpected_this_in_path, 2372),
     (sym_ERR_unexpected_super_in_path, 2372), (sym_ERR_fb_variables_after_method, 1697),
     (sym_ERR_var_access_not_allowed, 3160), (sym_ERR_var_config_not_allowed, 3160),
     (sym_ERR_var_global_not_allowed, 3160), (sym_ERR_method_decl_in_body, 3150),
     (sym_extern_pragma, 7490), (sym_wasm_pragma, 3150), (sym_warn_pragma, 7490),
     (sym_allow_pragma, 3140), (sym_test_pragma, 7490), (sym_once_pragma, 7490),
     (sym_must_call_pragma, 7490), (sym_export_pragma, 7490), (sym_pou_pragma, 7194),
     (sym_direct_variable, 7675), (sym_deref_expression, 2373), (sym_variable, 7599),
     (sym_var_access, 2373), (sym_in_out_decls, 3160), (sym_var_decls, 3160),
     (sym_retain_var_decls, 3160), (sym_temp_var_decls, 3160), (sym_external_var_decls, 3160),
     (sym_global_var_decls, 2947), (sym_loc_partly_var_decl, 3160), (sym__fb_variables, 2343),
     (sym_fb_input_decls, 3160), (sym_fb_output_decls, 3160), (sym_no_retain_var_decls, 3160),
     (sym_fb_body, 8612), (sym_method_decl, 2549), (sym_prog_access_decls, 3043), (sym_SFC, 7970),
     (sym_SFC_network, 7612), (sym_initial_step, 7439), (sym_config_init, 3047),
     (sym_variable_access, 7530), (sym_func_call, 2961), (sym_stmt_list, 7970), (sym__stmt, 2024),
     (sym_assign, 3150), (sym_if_stmt, 3150), (sym_case_stmt, 3150), (sym_for_stmt, 3150),
     (sym_while_stmt, 3150), (sym_repeat_stmt, 3150), (sym_raise_stmt, 3150), (sym_try_stmt, 3150),
     (sym_ERR_clause_outside_try, 3150), (sym_begin_path_expression, 2943), (sym_invocation, 2934),
     (sym_any_invocation, 2935), (sym_this_invocation, 2641), (sym_super_invocation, 2641),
     (sym_super_body_invocation, 2935), (sym_path_expression, 2627), (sym_field_expression, 2373),
     (sym_index_expression, 2373), (sym_ladder_diagram, 7970), (sym_fb_diagram, 7970),
     (aux_sym_ERR_fb_variables_after_method_repeat1, 2343), (aux_sym_func_decl_repeat1, 7194),
     (aux_sym_fb_decl_repeat3, 2549), (aux_sym_SFC_repeat1, 7612),
     (aux_sym_stmt_list_repeat1, 2024), (aux_sym_ladder_diagram_repeat1, 8009),
     (aux_sym_fb_diagram_repeat1, 8013), (sym_identifier, 298),
     (aux_sym_ERR_unexpected_this_in_path_token1, 304),
     (aux_sym_ERR_unexpected_super_in_path_token1, 306), (sym_line_comment, 3),
     (anon_sym_LBRACE, 308), (aux_sym_test_pragma_token1, 9), (aux_sym_once_pragma_token1, 11),
     (aux_sym_must_call_pragma_token1, 13), (aux_sym_export_pragma_token1, 15),
     (anon_sym_SEMI, 310), (anon_sym_PERCENT, 312), (aux_sym_input_decls_token1, 314),
     (aux_sym_output_decls_token1, 316), (aux_sym_in_out_decls_token1, 318),
     (aux_sym_var_decls_token1, 320), (aux_sym_temp_var_decls_token1, 322),
     (aux_sym_external_var_decls_token1, 324), (aux_sym_global_var_decls_token1, 326),
     (aux_sym_fb_decl_token4, 1772), (aux_sym_method_decl_token1, 330),
     (aux_sym_prog_access_decls_token1, 332), (aux_sym_initial_step_token1, 334),
     (aux_sym_config_init_token1, 336), (aux_sym__stmt_token1, 340), (aux_sym__stmt_token2, 340),
     (aux_sym__stmt_token3, 340), (aux_sym_if_stmt_token1, 342), (aux_sym_case_stmt_token1, 344),
     (aux_sym_for_stmt_token1, 346), (aux_sym_while_stmt_token1, 348),
     (aux_sym_repeat_stmt_token1, 350), (aux_sym_raise_stmt_token1, 352),
     (aux_sym_try_stmt_token1, 354), (aux_sym_try_stmt_token2, 356),
     (aux_sym_catch_clause_token1, 356), (aux_sym_finally_clause_token1, 356), (sym_ld_rung, 358),
     (sym_fbd_network, 360), (sym_c_style_comment, 3), (sym_pascal_style_comment, 3),
     (sym_pragma, 3)]"

lemma ts_parse_row_721_scan: "row_scan tokens_63_2 0 ts_parse_row_721 = Some (Suc (Suc (Suc (Suc 0))))"
  unfolding ts_parse_row_721_def by simp

text \<open>Lines 136795 to 136907.\<close>

definition ts_parse_row_722 :: parse_row where
  "ts_parse_row_722 =
    [(sym_ERR_assign_func_call, 7530), (sym_ERR_unexpected_this_in_path, 2372),
     (sym_ERR_unexpected_super_in_path, 2372), (sym_ERR_fb_variables_after_method, 1698),
     (sym_ERR_var_access_not_allowed, 3160), (sym_ERR_var_config_not_allowed, 3160),
     (sym_ERR_var_global_not_allowed, 3160), (sym_ERR_method_decl_in_body, 3150),
     (sym_extern_pragma, 7490), (sym_wasm_pragma, 3150), (sym_warn_pragma, 7490),
     (sym_allow_pragma, 3140), (sym_test_pragma, 7490), (sym_once_pragma, 7490),
     (sym_must_call_pragma, 7490), (sym_export_pragma, 7490), (sym_pou_pragma, 7194),
     (sym_direct_variable, 7675), (sym_deref_expression, 2373), (sym_variable, 7599),
     (sym_var_access, 2373), (sym_in_out_decls, 3160), (sym_var_decls, 3160),
     (sym_retain_var_decls, 3160), (sym_temp_var_decls, 3160), (sym_external_var_decls, 3160),
     (sym_global_var_decls, 2947), (sym_loc_partly_var_decl, 3160), (sym__fb_variables, 2347),
     (sym_fb_input_decls, 3160), (sym_fb_output_decls, 3160), (sym_no_retain_var_decls, 3160),
     (sym_fb_body, 8636), (sym_method_decl, 797), (sym_prog_access_decls, 3043), (sym_SFC, 7970),
     (sym_SFC_network, 7612), (sym_initial_step, 7439), (sym_config_init, 3047),
     (sym_variable_access, 7530), (sym_func_call, 2961), (sym_stmt_list, 7970), (sym__stmt, 2024),
     (sym_assign, 3150), (sym_if_stmt, 3150), (sym_case_stmt, 3150), (sym_for_stmt, 3150),
     (sym_while_stmt, 3150), (sym_repeat_stmt, 3150), (sym_raise_stmt, 3150), (sym_try_stmt, 3150),
     (sym_ERR_clause_outside_try, 3150), (sym_begin_path_expression, 2943), (sym_invocation, 2934),
     (sym_any_invocation, 2935), (sym_this_invocation, 2641), (sym_super_invocation, 2641),
     (sym_super_body_invocation, 2935), (sym_path_expression, 2627), (sym_field_expression, 2373),
     (sym_index_expression, 2373), (sym_ladder_diagram, 7970), (sym_fb_diagram, 7970),
     (aux_sym_ERR_fb_variables_after_method_repeat1, 2347), (aux_sym_func_decl_repeat1, 7194),
     (aux_sym_fb_decl_repeat3, 797), (aux_sym_SFC_repeat1, 7612), (aux_sym_stmt_list_repeat1, 2024),
     (aux_sym_ladder_diagram_repeat1, 8009), (aux_sym_fb_diagram_repeat1, 8013),
     (sym_identifier, 298), (aux_sym_ERR_unexpected_this_in_path_token1, 304),
     (aux_sym_ERR_unexpected_super_in_path_token1, 306), (sym_line_comment, 3),
     (anon_sym_LBRACE, 308), (aux_sym_test_pragma_token1, 9), (aux_sym_once_pragma_token1, 11),
     (aux_sym_must_call_pragma_token1, 13), (aux_sym_export_pragma_token1, 15),
     (anon_sym_SEMI, 310), (anon_sym_PERCENT, 312), (aux_sym_input_decls_token1, 314),
     (aux_sym_output_decls_token1, 316), (aux_sym_in_out_decls_token1, 318),
     (aux_sym_var_decls_token1, 320), (aux_sym_temp_var_decls_token1, 322),
     (aux_sym_external_var_decls_token1, 324), (aux_sym_global_var_decls_token1, 326),
     (aux_sym_fb_decl_token4, 1774), (aux_sym_method_decl_token1, 330),
     (aux_sym_prog_access_decls_token1, 332), (aux_sym_initial_step_token1, 334),
     (aux_sym_config_init_token1, 336), (aux_sym__stmt_token1, 340), (aux_sym__stmt_token2, 340),
     (aux_sym__stmt_token3, 340), (aux_sym_if_stmt_token1, 342), (aux_sym_case_stmt_token1, 344),
     (aux_sym_for_stmt_token1, 346), (aux_sym_while_stmt_token1, 348),
     (aux_sym_repeat_stmt_token1, 350), (aux_sym_raise_stmt_token1, 352),
     (aux_sym_try_stmt_token1, 354), (aux_sym_try_stmt_token2, 356),
     (aux_sym_catch_clause_token1, 356), (aux_sym_finally_clause_token1, 356), (sym_ld_rung, 358),
     (sym_fbd_network, 360), (sym_c_style_comment, 3), (sym_pascal_style_comment, 3),
     (sym_pragma, 3)]"

lemma ts_parse_row_722_scan: "row_scan tokens_63_2 0 ts_parse_row_722 = Some (Suc (Suc (Suc (Suc 0))))"
  unfolding ts_parse_row_722_def by simp

text \<open>Lines 136908 to 137020.\<close>

definition ts_parse_row_723 :: parse_row where
  "ts_parse_row_723 =
    [(sym_ERR_assign_func_call, 7530), (sym_ERR_unexpected_this_in_path, 2372),
     (sym_ERR_unexpected_super_in_path, 2372), (sym_ERR_fb_variables_after_method, 1700),
     (sym_ERR_var_access_not_allowed, 3160), (sym_ERR_var_config_not_allowed, 3160),
     (sym_ERR_var_global_not_allowed, 3160), (sym_ERR_method_decl_in_body, 3150),
     (sym_extern_pragma, 7490), (sym_wasm_pragma, 3150), (sym_warn_pragma, 7490),
     (sym_allow_pragma, 3140), (sym_test_pragma, 7490), (sym_once_pragma, 7490),
     (sym_must_call_pragma, 7490), (sym_export_pragma, 7490), (sym_pou_pragma, 7194),
     (sym_direct_variable, 7675), (sym_deref_expression, 2373), (sym_variable, 7599),
     (sym_var_access, 2373), (sym_in_out_decls, 3160), (sym_var_decls, 3160),
     (sym_retain_var_decls, 3160), (sym_temp_var_decls, 3160), (sym_external_var_decls, 3160),
     (sym_global_var_decls, 2947), (sym_loc_partly_var_decl, 3160), (sym__fb_variables, 2343),
     (sym_fb_input_decls, 3160), (sym_fb_output_decls, 3160), (sym_no_retain_var_decls, 3160),
     (sym_fb_body, 8652), (sym_method_decl, 2549), (sym_prog_access_decls, 3043), (sym_SFC, 7970),
     (sym_SFC_network, 7612), (sym_initial_step, 7439), (sym_config_init, 3047),
     (sym_variable_access, 7530), (sym_func_call, 2961), (sym_stmt_list, 7970), (sym__stmt, 2024),
     (sym_assign, 3150), (sym_if_stmt, 3150), (sym_case_stmt, 3150), (sym_for_stmt, 3150),
     (sym_while_stmt, 3150), (sym_repeat_stmt, 3150), (sym_raise_stmt, 3150), (sym_try_stmt, 3150),
     (sym_ERR_clause_outside_try, 3150), (sym_begin_path_expression, 2943), (sym_invocation, 2934),
     (sym_any_invocation, 2935), (sym_this_invocation, 2641), (sym_super_invocation, 2641),
     (sym_super_body_invocation, 2935), (sym_path_expression, 2627), (sym_field_expression, 2373),
     (sym_index_expression, 2373), (sym_ladder_diagram, 7970), (sym_fb_diagram, 7970),
     (aux_sym_ERR_fb_variables_after_method_repeat1, 2343), (aux_sym_func_decl_repeat1, 7194),
     (aux_sym_fb_decl_repeat3, 2549), (aux_sym_SFC_repeat1, 7612),
     (aux_sym_stmt_list_repeat1, 2024), (aux_sym_ladder_diagram_repeat1, 8009),
     (aux_sym_fb_diagram_repeat1, 8013), (sym_identifier, 298),
     (aux_sym_ERR_unexpected_this_in_path_token1, 304),
     (aux_sym_ERR_unexpected_super_in_path_token1, 306), (sym_line_comment, 3),
     (anon_sym_LBRACE, 308), (aux_sym_test_pragma_token1, 9), (aux_sym_once_pragma_token1, 11),
     (aux_sym_must_call_pragma_token1, 13), (aux_sym_export_pragma_token1, 15),
     (anon_sym_SEMI, 310), (anon_sym_PERCENT, 312), (aux_sym_input_decls_token1, 314),
     (aux_sym_output_decls_token1, 316), (aux_sym_in_out_decls_token1, 318),
     (aux_sym_var_decls_token1, 320), (aux_sym_temp_var_decls_token1, 322),
     (aux_sym_external_var_decls_token1, 324), (aux_sym_global_var_decls_token1, 326),
     (aux_sym_fb_decl_token4, 1776), (aux_sym_method_decl_token1, 330),
     (aux_sym_prog_access_decls_token1, 332), (aux_sym_initial_step_token1, 334),
     (aux_sym_config_init_token1, 336), (aux_sym__stmt_token1, 340), (aux_sym__stmt_token2, 340),
     (aux_sym__stmt_token3, 340), (aux_sym_if_stmt_token1, 342), (aux_sym_case_stmt_token1, 344),
     (aux_sym_for_stmt_token1, 346), (aux_sym_while_stmt_token1, 348),
     (aux_sym_repeat_stmt_token1, 350), (aux_sym_raise_stmt_token1, 352),
     (aux_sym_try_stmt_token1, 354), (aux_sym_try_stmt_token2, 356),
     (aux_sym_catch_clause_token1, 356), (aux_sym_finally_clause_token1, 356), (sym_ld_rung, 358),
     (sym_fbd_network, 360), (sym_c_style_comment, 3), (sym_pascal_style_comment, 3),
     (sym_pragma, 3)]"

lemma ts_parse_row_723_scan: "row_scan tokens_63_2 0 ts_parse_row_723 = Some (Suc (Suc (Suc (Suc 0))))"
  unfolding ts_parse_row_723_def by simp

text \<open>Lines 137021 to 137133.\<close>

definition ts_parse_row_724 :: parse_row where
  "ts_parse_row_724 =
    [(sym_ERR_assign_func_call, 7530), (sym_ERR_unexpected_this_in_path, 2372),
     (sym_ERR_unexpected_super_in_path, 2372), (sym_ERR_fb_variables_after_method, 1701),
     (sym_ERR_var_access_not_allowed, 3160), (sym_ERR_var_config_not_allowed, 3160),
     (sym_ERR_var_global_not_allowed, 3160), (sym_ERR_method_decl_in_body, 3150),
     (sym_extern_pragma, 7490), (sym_wasm_pragma, 3150), (sym_warn_pragma, 7490),
     (sym_allow_pragma, 3140), (sym_test_pragma, 7490), (sym_once_pragma, 7490),
     (sym_must_call_pragma, 7490), (sym_export_pragma, 7490), (sym_pou_pragma, 7194),
     (sym_direct_variable, 7675), (sym_deref_expression, 2373), (sym_variable, 7599),
     (sym_var_access, 2373), (sym_in_out_decls, 3160), (sym_var_decls, 3160),
     (sym_retain_var_decls, 3160), (sym_temp_var_decls, 3160), (sym_external_var_decls, 3160),
     (sym_global_var_decls, 2947), (sym_loc_partly_var_decl, 3160), (sym__fb_variables, 2347),
     (sym_fb_input_decls, 3160), (sym_fb_output_decls, 3160), (sym_no_retain_var_decls, 3160),
     (sym_fb_body, 8663), (sym_method_decl, 798), (sym_prog_access_decls, 3043), (sym_SFC, 7970),
     (sym_SFC_network, 7612), (sym_initial_step, 7439), (sym_config_init, 3047),
     (sym_variable_access, 7530), (sym_func_call, 2961), (sym_stmt_list, 7970), (sym__stmt, 2024),
     (sym_assign, 3150), (sym_if_stmt, 3150), (sym_case_stmt, 3150), (sym_for_stmt, 3150),
     (sym_while_stmt, 3150), (sym_repeat_stmt, 3150), (sym_raise_stmt, 3150), (sym_try_stmt, 3150),
     (sym_ERR_clause_outside_try, 3150), (sym_begin_path_expression, 2943), (sym_invocation, 2934),
     (sym_any_invocation, 2935), (sym_this_invocation, 2641), (sym_super_invocation, 2641),
     (sym_super_body_invocation, 2935), (sym_path_expression, 2627), (sym_field_expression, 2373),
     (sym_index_expression, 2373), (sym_ladder_diagram, 7970), (sym_fb_diagram, 7970),
     (aux_sym_ERR_fb_variables_after_method_repeat1, 2347), (aux_sym_func_decl_repeat1, 7194),
     (aux_sym_fb_decl_repeat3, 798), (aux_sym_SFC_repeat1, 7612), (aux_sym_stmt_list_repeat1, 2024),
     (aux_sym_ladder_diagram_repeat1, 8009), (aux_sym_fb_diagram_repeat1, 8013),
     (sym_identifier, 298), (aux_sym_ERR_unexpected_this_in_path_token1, 304),
     (aux_sym_ERR_unexpected_super_in_path_token1, 306), (sym_line_comment, 3),
     (anon_sym_LBRACE, 308), (aux_sym_test_pragma_token1, 9), (aux_sym_once_pragma_token1, 11),
     (aux_sym_must_call_pragma_token1, 13), (aux_sym_export_pragma_token1, 15),
     (anon_sym_SEMI, 310), (anon_sym_PERCENT, 312), (aux_sym_input_decls_token1, 314),
     (aux_sym_output_decls_token1, 316), (aux_sym_in_out_decls_token1, 318),
     (aux_sym_var_decls_token1, 320), (aux_sym_temp_var_decls_token1, 322),
     (aux_sym_external_var_decls_token1, 324), (aux_sym_global_var_decls_token1, 326),
     (aux_sym_fb_decl_token4, 1778), (aux_sym_method_decl_token1, 330),
     (aux_sym_prog_access_decls_token1, 332), (aux_sym_initial_step_token1, 334),
     (aux_sym_config_init_token1, 336), (aux_sym__stmt_token1, 340), (aux_sym__stmt_token2, 340),
     (aux_sym__stmt_token3, 340), (aux_sym_if_stmt_token1, 342), (aux_sym_case_stmt_token1, 344),
     (aux_sym_for_stmt_token1, 346), (aux_sym_while_stmt_token1, 348),
     (aux_sym_repeat_stmt_token1, 350), (aux_sym_raise_stmt_token1, 352),
     (aux_sym_try_stmt_token1, 354), (aux_sym_try_stmt_token2, 356),
     (aux_sym_catch_clause_token1, 356), (aux_sym_finally_clause_token1, 356), (sym_ld_rung, 358),
     (sym_fbd_network, 360), (sym_c_style_comment, 3), (sym_pascal_style_comment, 3),
     (sym_pragma, 3)]"

lemma ts_parse_row_724_scan: "row_scan tokens_63_2 0 ts_parse_row_724 = Some (Suc (Suc (Suc (Suc 0))))"
  unfolding ts_parse_row_724_def by simp

text \<open>Lines 137134 to 137246.\<close>

definition ts_parse_row_725 :: parse_row where
  "ts_parse_row_725 =
    [(sym_ERR_assign_func_call, 7530), (sym_ERR_unexpected_this_in_path, 2372),
     (sym_ERR_unexpected_super_in_path, 2372), (sym_ERR_fb_variables_after_method, 1849),
     (sym_ERR_var_access_not_allowed, 3160), (sym_ERR_var_config_not_allowed, 3160),
     (sym_ERR_var_global_not_allowed, 3160), (sym_ERR_method_decl_in_body, 3150),
     (sym_extern_pragma, 7490), (sym_wasm_pragma, 3150), (sym_warn_pragma, 7490),
     (sym_allow_pragma, 3140), (sym_test_pragma, 7490), (sym_once_pragma, 7490),
     (sym_must_call_pragma, 7490), (sym_export_pragma, 7490), (sym_pou_pragma, 7194),
     (sym_direct_variable, 7675), (sym_deref_expression, 2373), (sym_variable, 7599),
     (sym_var_access, 2373), (sym_in_out_decls, 3160), (sym_var_decls, 3160),
     (sym_retain_var_decls, 3160), (sym_temp_var_decls, 3160), (sym_external_var_decls, 3160),
     (sym_global_var_decls, 2947), (sym_loc_partly_var_decl, 3160), (sym__fb_variables, 2343),
     (sym_fb_input_decls, 3160), (sym_fb_output_decls, 3160), (sym_no_retain_var_decls, 3160),
     (sym_fb_body, 9521), (sym_method_decl, 2549), (sym_prog_access_decls, 3043), (sym_SFC, 7970),
     (sym_SFC_network, 7612), (sym_initial_step, 7439), (sym_config_init, 3047),
     (sym_variable_access, 7530), (sym_func_call, 2961), (sym_stmt_list, 7970), (sym__stmt, 2024),
     (sym_assign, 3150), (sym_if_stmt, 3150), (sym_case_stmt, 3150), (sym_for_stmt, 3150),
     (sym_while_stmt, 3150), (sym_repeat_stmt, 3150), (sym_raise_stmt, 3150), (sym_try_stmt, 3150),
     (sym_ERR_clause_outside_try, 3150), (sym_begin_path_expression, 2943), (sym_invocation, 2934),
     (sym_any_invocation, 2935), (sym_this_invocation, 2641), (sym_super_invocation, 2641),
     (sym_super_body_invocation, 2935), (sym_path_expression, 2627), (sym_field_expression, 2373),
     (sym_index_expression, 2373), (sym_ladder_diagram, 7970), (sym_fb_diagram, 7970),
     (aux_sym_ERR_fb_variables_after_method_repeat1, 2343), (aux_sym_func_decl_repeat1, 7194),
     (aux_sym_fb_decl_repeat3, 2549), (aux_sym_SFC_repeat1, 7612),
     (aux_sym_stmt_list_repeat1, 2024), (aux_sym_ladder_diagram_repeat1, 8009),
     (aux_sym_fb_diagram_repeat1, 8013), (sym_identifier, 298),
     (aux_sym_ERR_unexpected_this_in_path_token1, 304),
     (aux_sym_ERR_unexpected_super_in_path_token1, 306), (sym_line_comment, 3),
     (anon_sym_LBRACE, 308), (aux_sym_test_pragma_token1, 9), (aux_sym_once_pragma_token1, 11),
     (aux_sym_must_call_pragma_token1, 13), (aux_sym_export_pragma_token1, 15),
     (anon_sym_SEMI, 310), (anon_sym_PERCENT, 312), (aux_sym_input_decls_token1, 314),
     (aux_sym_output_decls_token1, 316), (aux_sym_in_out_decls_token1, 318),
     (aux_sym_var_decls_token1, 320), (aux_sym_temp_var_decls_token1, 322),
     (aux_sym_external_var_decls_token1, 324), (aux_sym_global_var_decls_token1, 326),
     (aux_sym_fb_decl_token4, 1780), (aux_sym_method_decl_token1, 330),
     (aux_sym_prog_access_decls_token1, 332), (aux_sym_initial_step_token1, 334),
     (aux_sym_config_init_token1, 336), (aux_sym__stmt_token1, 340), (aux_sym__stmt_token2, 340),
     (aux_sym__stmt_token3, 340), (aux_sym_if_stmt_token1, 342), (aux_sym_case_stmt_token1, 344),
     (aux_sym_for_stmt_token1, 346), (aux_sym_while_stmt_token1, 348),
     (aux_sym_repeat_stmt_token1, 350), (aux_sym_raise_stmt_token1, 352),
     (aux_sym_try_stmt_token1, 354), (aux_sym_try_stmt_token2, 356),
     (aux_sym_catch_clause_token1, 356), (aux_sym_finally_clause_token1, 356), (sym_ld_rung, 358),
     (sym_fbd_network, 360), (sym_c_style_comment, 3), (sym_pascal_style_comment, 3),
     (sym_pragma, 3)]"

lemma ts_parse_row_725_scan: "row_scan tokens_63_2 0 ts_parse_row_725 = Some (Suc (Suc (Suc (Suc 0))))"
  unfolding ts_parse_row_725_def by simp

text \<open>Lines 137247 to 137359.\<close>

definition ts_parse_row_726 :: parse_row where
  "ts_parse_row_726 =
    [(sym_ERR_assign_func_call, 7530), (sym_ERR_unexpected_this_in_path, 2372),
     (sym_ERR_unexpected_super_in_path, 2372), (sym_ERR_fb_variables_after_method, 1704),
     (sym_ERR_var_access_not_allowed, 3160), (sym_ERR_var_config_not_allowed, 3160),
     (sym_ERR_var_global_not_allowed, 3160), (sym_ERR_method_decl_in_body, 3150),
     (sym_extern_pragma, 7490), (sym_wasm_pragma, 3150), (sym_warn_pragma, 7490),
     (sym_allow_pragma, 3140), (sym_test_pragma, 7490), (sym_once_pragma, 7490),
     (sym_must_call_pragma, 7490), (sym_export_pragma, 7490), (sym_pou_pragma, 7194),
     (sym_direct_variable, 7675), (sym_deref_expression, 2373), (sym_variable, 7599),
     (sym_var_access, 2373), (sym_in_out_decls, 3160), (sym_var_decls, 3160),
     (sym_retain_var_decls, 3160), (sym_temp_var_decls, 3160), (sym_external_var_decls, 3160),
     (sym_global_var_decls, 2947), (sym_loc_partly_var_decl, 3160), (sym__fb_variables, 2343),
     (sym_fb_input_decls, 3160), (sym_fb_output_decls, 3160), (sym_no_retain_var_decls, 3160),
     (sym_fb_body, 8698), (sym_method_decl, 2549), (sym_prog_access_decls, 3043), (sym_SFC, 7970),
     (sym_SFC_network, 7612), (sym_initial_step, 7439), (sym_config_init, 3047),
     (sym_variable_access, 7530), (sym_func_call, 2961), (sym_stmt_list, 7970), (sym__stmt, 2024),
     (sym_assign, 3150), (sym_if_stmt, 3150), (sym_case_stmt, 3150), (sym_for_stmt, 3150),
     (sym_while_stmt, 3150), (sym_repeat_stmt, 3150), (sym_raise_stmt, 3150), (sym_try_stmt, 3150),
     (sym_ERR_clause_outside_try, 3150), (sym_begin_path_expression, 2943), (sym_invocation, 2934),
     (sym_any_invocation, 2935), (sym_this_invocation, 2641), (sym_super_invocation, 2641),
     (sym_super_body_invocation, 2935), (sym_path_expression, 2627), (sym_field_expression, 2373),
     (sym_index_expression, 2373), (sym_ladder_diagram, 7970), (sym_fb_diagram, 7970),
     (aux_sym_ERR_fb_variables_after_method_repeat1, 2343), (aux_sym_func_decl_repeat1, 7194),
     (aux_sym_fb_decl_repeat3, 2549), (aux_sym_SFC_repeat1, 7612),
     (aux_sym_stmt_list_repeat1, 2024), (aux_sym_ladder_diagram_repeat1, 8009),
     (aux_sym_fb_diagram_repeat1, 8013), (sym_identifier, 298),
     (aux_sym_ERR_unexpected_this_in_path_token1, 304),
     (aux_sym_ERR_unexpected_super_in_path_token1, 306), (sym_line_comment, 3),
     (anon_sym_LBRACE, 308), (aux_sym_test_pragma_token1, 9), (aux_sym_once_pragma_token1, 11),
     (aux_sym_must_call_pragma_token1, 13), (aux_sym_export_pragma_token1, 15),
     (anon_sym_SEMI, 310), (anon_sym_PERCENT, 312), (aux_sym_input_decls_token1, 314),
     (aux_sym_output_decls_token1, 316), (aux_sym_in_out_decls_token1, 318),
     (aux_sym_var_decls_token1, 320), (aux_sym_temp_var_decls_token1, 322),
     (aux_sym_external_var_decls_token1, 324), (aux_sym_global_var_decls_token1, 326),
     (aux_sym_fb_decl_token4, 1782), (aux_sym_method_decl_token1, 330),
     (aux_sym_prog_access_decls_token1, 332), (aux_sym_initial_step_token1, 334),
     (aux_sym_config_init_token1, 336), (aux_sym__stmt_token1, 340), (aux_sym__stmt_token2, 340),
     (aux_sym__stmt_token3, 340), (aux_sym_if_stmt_token1, 342), (aux_sym_case_stmt_token1, 344),
     (aux_sym_for_stmt_token1, 346), (aux_sym_while_stmt_token1, 348),
     (aux_sym_repeat_stmt_token1, 350), (aux_sym_raise_stmt_token1, 352),
     (aux_sym_try_stmt_token1, 354), (aux_sym_try_stmt_token2, 356),
     (aux_sym_catch_clause_token1, 356), (aux_sym_finally_clause_token1, 356), (sym_ld_rung, 358),
     (sym_fbd_network, 360), (sym_c_style_comment, 3), (sym_pascal_style_comment, 3),
     (sym_pragma, 3)]"

lemma ts_parse_row_726_scan: "row_scan tokens_63_2 0 ts_parse_row_726 = Some (Suc (Suc (Suc (Suc 0))))"
  unfolding ts_parse_row_726_def by simp

text \<open>Lines 137360 to 137472.\<close>

definition ts_parse_row_727 :: parse_row where
  "ts_parse_row_727 =
    [(sym_ERR_assign_func_call, 7530), (sym_ERR_unexpected_this_in_path, 2372),
     (sym_ERR_unexpected_super_in_path, 2372), (sym_ERR_fb_variables_after_method, 1705),
     (sym_ERR_var_access_not_allowed, 3160), (sym_ERR_var_config_not_allowed, 3160),
     (sym_ERR_var_global_not_allowed, 3160), (sym_ERR_method_decl_in_body, 3150),
     (sym_extern_pragma, 7490), (sym_wasm_pragma, 3150), (sym_warn_pragma, 7490),
     (sym_allow_pragma, 3140), (sym_test_pragma, 7490), (sym_once_pragma, 7490),
     (sym_must_call_pragma, 7490), (sym_export_pragma, 7490), (sym_pou_pragma, 7194),
     (sym_direct_variable, 7675), (sym_deref_expression, 2373), (sym_variable, 7599),
     (sym_var_access, 2373), (sym_in_out_decls, 3160), (sym_var_decls, 3160),
     (sym_retain_var_decls, 3160), (sym_temp_var_decls, 3160), (sym_external_var_decls, 3160),
     (sym_global_var_decls, 2947), (sym_loc_partly_var_decl, 3160), (sym__fb_variables, 2347),
     (sym_fb_input_decls, 3160), (sym_fb_output_decls, 3160), (sym_no_retain_var_decls, 3160),
     (sym_fb_body, 8758), (sym_method_decl, 801), (sym_prog_access_decls, 3043), (sym_SFC, 7970),
     (sym_SFC_network, 7612), (sym_initial_step, 7439), (sym_config_init, 3047),
     (sym_variable_access, 7530), (sym_func_call, 2961), (sym_stmt_list, 7970), (sym__stmt, 2024),
     (sym_assign, 3150), (sym_if_stmt, 3150), (sym_case_stmt, 3150), (sym_for_stmt, 3150),
     (sym_while_stmt, 3150), (sym_repeat_stmt, 3150), (sym_raise_stmt, 3150), (sym_try_stmt, 3150),
     (sym_ERR_clause_outside_try, 3150), (sym_begin_path_expression, 2943), (sym_invocation, 2934),
     (sym_any_invocation, 2935), (sym_this_invocation, 2641), (sym_super_invocation, 2641),
     (sym_super_body_invocation, 2935), (sym_path_expression, 2627), (sym_field_expression, 2373),
     (sym_index_expression, 2373), (sym_ladder_diagram, 7970), (sym_fb_diagram, 7970),
     (aux_sym_ERR_fb_variables_after_method_repeat1, 2347), (aux_sym_func_decl_repeat1, 7194),
     (aux_sym_fb_decl_repeat3, 801), (aux_sym_SFC_repeat1, 7612), (aux_sym_stmt_list_repeat1, 2024),
     (aux_sym_ladder_diagram_repeat1, 8009), (aux_sym_fb_diagram_repeat1, 8013),
     (sym_identifier, 298), (aux_sym_ERR_unexpected_this_in_path_token1, 304),
     (aux_sym_ERR_unexpected_super_in_path_token1, 306), (sym_line_comment, 3),
     (anon_sym_LBRACE, 308), (aux_sym_test_pragma_token1, 9), (aux_sym_once_pragma_token1, 11),
     (aux_sym_must_call_pragma_token1, 13), (aux_sym_export_pragma_token1, 15),
     (anon_sym_SEMI, 310), (anon_sym_PERCENT, 312), (aux_sym_input_decls_token1, 314),
     (aux_sym_output_decls_token1, 316), (aux_sym_in_out_decls_token1, 318),
     (aux_sym_var_decls_token1, 320), (aux_sym_temp_var_decls_token1, 322),
     (aux_sym_external_var_decls_token1, 324), (aux_sym_global_var_decls_token1, 326),
     (aux_sym_fb_decl_token4, 1784), (aux_sym_method_decl_token1, 330),
     (aux_sym_prog_access_decls_token1, 332), (aux_sym_initial_step_token1, 334),
     (aux_sym_config_init_token1, 336), (aux_sym__stmt_token1, 340), (aux_sym__stmt_token2, 340),
     (aux_sym__stmt_token3, 340), (aux_sym_if_stmt_token1, 342), (aux_sym_case_stmt_token1, 344),
     (aux_sym_for_stmt_token1, 346), (aux_sym_while_stmt_token1, 348),
     (aux_sym_repeat_stmt_token1, 350), (aux_sym_raise_stmt_token1, 352),
     (aux_sym_try_stmt_token1, 354), (aux_sym_try_stmt_token2, 356),
     (aux_sym_catch_clause_token1, 356), (aux_sym_finally_clause_token1, 356), (sym_ld_rung, 358),
     (sym_fbd_network, 360), (sym_c_style_comment, 3), (sym_pascal_style_comment, 3),
     (sym_pragma, 3)]"

lemma ts_parse_row_727_scan: "row_scan tokens_63_2 0 ts_parse_row_727 = Some (Suc (Suc (Suc (Suc 0))))"
  unfolding ts_parse_row_727_def by simp

text \<open>Lines 137473 to 137585.\<close>

definition ts_parse_row_728 :: parse_row where
  "ts_parse_row_728 =
    [(sym_ERR_assign_func_call, 7530), (sym_ERR_unexpected_this_in_path, 2372),
     (sym_ERR_unexpected_super_in_path, 2372), (sym_ERR_fb_variables_after_method, 1853),
     (sym_ERR_var_access_not_allowed, 3160), (sym_ERR_var_config_not_allowed, 3160),
     (sym_ERR_var_global_not_allowed, 3160), (sym_ERR_method_decl_in_body, 3150),
     (sym_extern_pragma, 7490), (sym_wasm_pragma, 3150), (sym_warn_pragma, 7490),
     (sym_allow_pragma, 3140), (sym_test_pragma, 7490), (sym_once_pragma, 7490),
     (sym_must_call_pragma, 7490), (sym_export_pragma, 7490), (sym_pou_pragma, 7194),
     (sym_direct_variable, 7675), (sym_deref_expression, 2373), (sym_variable, 7599),
     (sym_var_access, 2373), (sym_in_out_decls, 3160), (sym_var_decls, 3160),
     (sym_retain_var_decls, 3160), (sym_temp_var_decls, 3160), (sym_external_var_decls, 3160),
     (sym_global_var_decls, 2947), (sym_loc_partly_var_decl, 3160), (sym__fb_variables, 2347),
     (sym_fb_input_decls, 3160), (sym_fb_output_decls, 3160), (sym_no_retain_var_decls, 3160),
     (sym_fb_body, 9532), (sym_method_decl, 393), (sym_prog_access_decls, 3043), (sym_SFC, 7970),
     (sym_SFC_network, 7612), (sym_initial_step, 7439), (sym_config_init, 3047),
     (sym_variable_access, 7530), (sym_func_call, 2961), (sym_stmt_list, 7970), (sym__stmt, 2024),
     (sym_assign, 3150), (sym_if_stmt, 3150), (sym_case_stmt, 3150), (sym_for_stmt, 3150),
     (sym_while_stmt, 3150), (sym_repeat_stmt, 3150), (sym_raise_stmt, 3150), (sym_try_stmt, 3150),
     (sym_ERR_clause_outside_try, 3150), (sym_begin_path_expression, 2943), (sym_invocation, 2934),
     (sym_any_invocation, 2935), (sym_this_invocation, 2641), (sym_super_invocation, 2641),
     (sym_super_body_invocation, 2935), (sym_path_expression, 2627), (sym_field_expression, 2373),
     (sym_index_expression, 2373), (sym_ladder_diagram, 7970), (sym_fb_diagram, 7970),
     (aux_sym_ERR_fb_variables_after_method_repeat1, 2347), (aux_sym_func_decl_repeat1, 7194),
     (aux_sym_fb_decl_repeat3, 393), (aux_sym_SFC_repeat1, 7612), (aux_sym_stmt_list_repeat1, 2024),
     (aux_sym_ladder_diagram_repeat1, 8009), (aux_sym_fb_diagram_repeat1, 8013),
     (sym_identifier, 298), (aux_sym_ERR_unexpected_this_in_path_token1, 304),
     (aux_sym_ERR_unexpected_super_in_path_token1, 306), (sym_line_comment, 3),
     (anon_sym_LBRACE, 308), (aux_sym_test_pragma_token1, 9), (aux_sym_once_pragma_token1, 11),
     (aux_sym_must_call_pragma_token1, 13), (aux_sym_export_pragma_token1, 15),
     (anon_sym_SEMI, 310), (anon_sym_PERCENT, 312), (aux_sym_input_decls_token1, 314),
     (aux_sym_output_decls_token1, 316), (aux_sym_in_out_decls_token1, 318),
     (aux_sym_var_decls_token1, 320), (aux_sym_temp_var_decls_token1, 322),
     (aux_sym_external_var_decls_token1, 324), (aux_sym_global_var_decls_token1, 326),
     (aux_sym_fb_decl_token4, 1786), (aux_sym_method_decl_token1, 330),
     (aux_sym_prog_access_decls_token1, 332), (aux_sym_initial_step_token1, 334),
     (aux_sym_config_init_token1, 336), (aux_sym__stmt_token1, 340), (aux_sym__stmt_token2, 340),
     (aux_sym__stmt_token3, 340), (aux_sym_if_stmt_token1, 342), (aux_sym_case_stmt_token1, 344),
     (aux_sym_for_stmt_token1, 346), (aux_sym_while_stmt_token1, 348),
     (aux_sym_repeat_stmt_token1, 350), (aux_sym_raise_stmt_token1, 352),
     (aux_sym_try_stmt_token1, 354), (aux_sym_try_stmt_token2, 356),
     (aux_sym_catch_clause_token1, 356), (aux_sym_finally_clause_token1, 356), (sym_ld_rung, 358),
     (sym_fbd_network, 360), (sym_c_style_comment, 3), (sym_pascal_style_comment, 3),
     (sym_pragma, 3)]"

lemma ts_parse_row_728_scan: "row_scan tokens_63_2 0 ts_parse_row_728 = Some (Suc (Suc (Suc (Suc 0))))"
  unfolding ts_parse_row_728_def by simp

text \<open>Lines 137586 to 137698.\<close>

definition ts_parse_row_729 :: parse_row where
  "ts_parse_row_729 =
    [(sym_ERR_assign_func_call, 7530), (sym_ERR_unexpected_this_in_path, 2372),
     (sym_ERR_unexpected_super_in_path, 2372), (sym_ERR_fb_variables_after_method, 1854),
     (sym_ERR_var_access_not_allowed, 3160), (sym_ERR_var_config_not_allowed, 3160),
     (sym_ERR_var_global_not_allowed, 3160), (sym_ERR_method_decl_in_body, 3150),
     (sym_extern_pragma, 7490), (sym_wasm_pragma, 3150), (sym_warn_pragma, 7490),
     (sym_allow_pragma, 3140), (sym_test_pragma, 7490), (sym_once_pragma, 7490),
     (sym_must_call_pragma, 7490), (sym_export_pragma, 7490), (sym_pou_pragma, 7194),
     (sym_direct_variable, 7675), (sym_deref_expression, 2373), (sym_variable, 7599),
     (sym_var_access, 2373), (sym_in_out_decls, 3160), (sym_var_decls, 3160),
     (sym_retain_var_decls, 3160), (sym_temp_var_decls, 3160), (sym_external_var_decls, 3160),
     (sym_global_var_decls, 2947), (sym_loc_partly_var_decl, 3160), (sym__fb_variables, 2343),
     (sym_fb_input_decls, 3160), (sym_fb_output_decls, 3160), (sym_no_retain_var_decls, 3160),
     (sym_fb_body, 9539), (sym_method_decl, 2549), (sym_prog_access_decls, 3043), (sym_SFC, 7970),
     (sym_SFC_network, 7612), (sym_initial_step, 7439), (sym_config_init, 3047),
     (sym_variable_access, 7530), (sym_func_call, 2961), (sym_stmt_list, 7970), (sym__stmt, 2024),
     (sym_assign, 3150), (sym_if_stmt, 3150), (sym_case_stmt, 3150), (sym_for_stmt, 3150),
     (sym_while_stmt, 3150), (sym_repeat_stmt, 3150), (sym_raise_stmt, 3150), (sym_try_stmt, 3150),
     (sym_ERR_clause_outside_try, 3150), (sym_begin_path_expression, 2943), (sym_invocation, 2934),
     (sym_any_invocation, 2935), (sym_this_invocation, 2641), (sym_super_invocation, 2641),
     (sym_super_body_invocation, 2935), (sym_path_expression, 2627), (sym_field_expression, 2373),
     (sym_index_expression, 2373), (sym_ladder_diagram, 7970), (sym_fb_diagram, 7970),
     (aux_sym_ERR_fb_variables_after_method_repeat1, 2343), (aux_sym_func_decl_repeat1, 7194),
     (aux_sym_fb_decl_repeat3, 2549), (aux_sym_SFC_repeat1, 7612),
     (aux_sym_stmt_list_repeat1, 2024), (aux_sym_ladder_diagram_repeat1, 8009),
     (aux_sym_fb_diagram_repeat1, 8013), (sym_identifier, 298),
     (aux_sym_ERR_unexpected_this_in_path_token1, 304),
     (aux_sym_ERR_unexpected_super_in_path_token1, 306), (sym_line_comment, 3),
     (anon_sym_LBRACE, 308), (aux_sym_test_pragma_token1, 9), (aux_sym_once_pragma_token1, 11),
     (aux_sym_must_call_pragma_token1, 13), (aux_sym_export_pragma_token1, 15),
     (anon_sym_SEMI, 310), (anon_sym_PERCENT, 312), (aux_sym_input_decls_token1, 314),
     (aux_sym_output_decls_token1, 316), (aux_sym_in_out_decls_token1, 318),
     (aux_sym_var_decls_token1, 320), (aux_sym_temp_var_decls_token1, 322),
     (aux_sym_external_var_decls_token1, 324), (aux_sym_global_var_decls_token1, 326),
     (aux_sym_fb_decl_token4, 1788), (aux_sym_method_decl_token1, 330),
     (aux_sym_prog_access_decls_token1, 332), (aux_sym_initial_step_token1, 334),
     (aux_sym_config_init_token1, 336), (aux_sym__stmt_token1, 340), (aux_sym__stmt_token2, 340),
     (aux_sym__stmt_token3, 340), (aux_sym_if_stmt_token1, 342), (aux_sym_case_stmt_token1, 344),
     (aux_sym_for_stmt_token1, 346), (aux_sym_while_stmt_token1, 348),
     (aux_sym_repeat_stmt_token1, 350), (aux_sym_raise_stmt_token1, 352),
     (aux_sym_try_stmt_token1, 354), (aux_sym_try_stmt_token2, 356),
     (aux_sym_catch_clause_token1, 356), (aux_sym_finally_clause_token1, 356), (sym_ld_rung, 358),
     (sym_fbd_network, 360), (sym_c_style_comment, 3), (sym_pascal_style_comment, 3),
     (sym_pragma, 3)]"

lemma ts_parse_row_729_scan: "row_scan tokens_63_2 0 ts_parse_row_729 = Some (Suc (Suc (Suc (Suc 0))))"
  unfolding ts_parse_row_729_def by simp

text \<open>Lines 137699 to 137811.\<close>

definition ts_parse_row_730 :: parse_row where
  "ts_parse_row_730 =
    [(sym_ERR_assign_func_call, 7530), (sym_ERR_unexpected_this_in_path, 2372),
     (sym_ERR_unexpected_super_in_path, 2372), (sym_ERR_fb_variables_after_method, 1713),
     (sym_ERR_var_access_not_allowed, 3160), (sym_ERR_var_config_not_allowed, 3160),
     (sym_ERR_var_global_not_allowed, 3160), (sym_ERR_method_decl_in_body, 3150),
     (sym_extern_pragma, 7490), (sym_wasm_pragma, 3150), (sym_warn_pragma, 7490),
     (sym_allow_pragma, 3140), (sym_test_pragma, 7490), (sym_once_pragma, 7490),
     (sym_must_call_pragma, 7490), (sym_export_pragma, 7490), (sym_pou_pragma, 7194),
     (sym_direct_variable, 7675), (sym_deref_expression, 2373), (sym_variable, 7599),
     (sym_var_access, 2373), (sym_in_out_decls, 3160), (sym_var_decls, 3160),
     (sym_retain_var_decls, 3160), (sym_temp_var_decls, 3160), (sym_external_var_decls, 3160),
     (sym_global_var_decls, 2947), (sym_loc_partly_var_decl, 3160), (sym__fb_variables, 2343),
     (sym_fb_input_decls, 3160), (sym_fb_output_decls, 3160), (sym_no_retain_var_decls, 3160),
     (sym_fb_body, 8817), (sym_method_decl, 2549), (sym_prog_access_decls, 3043), (sym_SFC, 7970),
     (sym_SFC_network, 7612), (sym_initial_step, 7439), (sym_config_init, 3047),
     (sym_variable_access, 7530), (sym_func_call, 2961), (sym_stmt_list, 7970), (sym__stmt, 2024),
     (sym_assign, 3150), (sym_if_stmt, 3150), (sym_case_stmt, 3150), (sym_for_stmt, 3150),
     (sym_while_stmt, 3150), (sym_repeat_stmt, 3150), (sym_raise_stmt, 3150), (sym_try_stmt, 3150),
     (sym_ERR_clause_outside_try, 3150), (sym_begin_path_expression, 2943), (sym_invocation, 2934),
     (sym_any_invocation, 2935), (sym_this_invocation, 2641), (sym_super_invocation, 2641),
     (sym_super_body_invocation, 2935), (sym_path_expression, 2627), (sym_field_expression, 2373),
     (sym_index_expression, 2373), (sym_ladder_diagram, 7970), (sym_fb_diagram, 7970),
     (aux_sym_ERR_fb_variables_after_method_repeat1, 2343), (aux_sym_func_decl_repeat1, 7194),
     (aux_sym_fb_decl_repeat3, 2549), (aux_sym_SFC_repeat1, 7612),
     (aux_sym_stmt_list_repeat1, 2024), (aux_sym_ladder_diagram_repeat1, 8009),
     (aux_sym_fb_diagram_repeat1, 8013), (sym_identifier, 298),
     (aux_sym_ERR_unexpected_this_in_path_token1, 304),
     (aux_sym_ERR_unexpected_super_in_path_token1, 306), (sym_line_comment, 3),
     (anon_sym_LBRACE, 308), (aux_sym_test_pragma_token1, 9), (aux_sym_once_pragma_token1, 11),
     (aux_sym_must_call_pragma_token1, 13), (aux_sym_export_pragma_token1, 15),
     (anon_sym_SEMI, 310), (anon_sym_PERCENT, 312), (aux_sym_input_decls_token1, 314),
     (aux_sym_output_decls_token1, 316), (aux_sym_in_out_decls_token1, 318),
     (aux_sym_var_decls_token1, 320), (aux_sym_temp_var_decls_token1, 322),
     (aux_sym_external_var_decls_token1, 324), (aux_sym_global_var_decls_token1, 326),
     (aux_sym_fb_decl_token4, 1790), (aux_sym_method_decl_token1, 330),
     (aux_sym_prog_access_decls_token1, 332), (aux_sym_initial_step_token1, 334),
     (aux_sym_config_init_token1, 336), (aux_sym__stmt_token1, 340), (aux_sym__stmt_token2, 340),
     (aux_sym__stmt_token3, 340), (aux_sym_if_stmt_token1, 342), (aux_sym_case_stmt_token1, 344),
     (aux_sym_for_stmt_token1, 346), (aux_sym_while_stmt_token1, 348),
     (aux_sym_repeat_stmt_token1, 350), (aux_sym_raise_stmt_token1, 352),
     (aux_sym_try_stmt_token1, 354), (aux_sym_try_stmt_token2, 356),
     (aux_sym_catch_clause_token1, 356), (aux_sym_finally_clause_token1, 356), (sym_ld_rung, 358),
     (sym_fbd_network, 360), (sym_c_style_comment, 3), (sym_pascal_style_comment, 3),
     (sym_pragma, 3)]"

lemma ts_parse_row_730_scan: "row_scan tokens_63_2 0 ts_parse_row_730 = Some (Suc (Suc (Suc (Suc 0))))"
  unfolding ts_parse_row_730_def by simp

text \<open>Lines 137812 to 137924.\<close>

definition ts_parse_row_731 :: parse_row where
  "ts_parse_row_731 =
    [(sym_ERR_assign_func_call, 7530), (sym_ERR_unexpected_this_in_path, 2372),
     (sym_ERR_unexpected_super_in_path, 2372), (sym_ERR_fb_variables_after_method, 1714),
     (sym_ERR_var_access_not_allowed, 3160), (sym_ERR_var_config_not_allowed, 3160),
     (sym_ERR_var_global_not_allowed, 3160), (sym_ERR_method_decl_in_body, 3150),
     (sym_extern_pragma, 7490), (sym_wasm_pragma, 3150), (sym_warn_pragma, 7490),
     (sym_allow_pragma, 3140), (sym_test_pragma, 7490), (sym_once_pragma, 7490),
     (sym_must_call_pragma, 7490), (sym_export_pragma, 7490), (sym_pou_pragma, 7194),
     (sym_direct_variable, 7675), (sym_deref_expression, 2373), (sym_variable, 7599),
     (sym_var_access, 2373), (sym_in_out_decls, 3160), (sym_var_decls, 3160),
     (sym_retain_var_decls, 3160), (sym_temp_var_decls, 3160), (sym_external_var_decls, 3160),
     (sym_global_var_decls, 2947), (sym_loc_partly_var_decl, 3160), (sym__fb_variables, 2343),
     (sym_fb_input_decls, 3160), (sym_fb_output_decls, 3160), (sym_no_retain_var_decls, 3160),
     (sym_fb_body, 8869), (sym_method_decl, 2549), (sym_prog_access_decls, 3043), (sym_SFC, 7970),
     (sym_SFC_network, 7612), (sym_initial_step, 7439), (sym_config_init, 3047),
     (sym_variable_access, 7530), (sym_func_call, 2961), (sym_stmt_list, 7970), (sym__stmt, 2024),
     (sym_assign, 3150), (sym_if_stmt, 3150), (sym_case_stmt, 3150), (sym_for_stmt, 3150),
     (sym_while_stmt, 3150), (sym_repeat_stmt, 3150), (sym_raise_stmt, 3150), (sym_try_stmt, 3150),
     (sym_ERR_clause_outside_try, 3150), (sym_begin_path_expression, 2943), (sym_invocation, 2934),
     (sym_any_invocation, 2935), (sym_this_invocation, 2641), (sym_super_invocation, 2641),
     (sym_super_body_invocation, 2935), (sym_path_expression, 2627), (sym_field_expression, 2373),
     (sym_index_expression, 2373), (sym_ladder_diagram, 7970), (sym_fb_diagram, 7970),
     (aux_sym_ERR_fb_variables_after_method_repeat1, 2343), (aux_sym_func_decl_repeat1, 7194),
     (aux_sym_fb_decl_repeat3, 2549), (aux_sym_SFC_repeat1, 7612),
     (aux_sym_stmt_list_repeat1, 2024), (aux_sym_ladder_diagram_repeat1, 8009),
     (aux_sym_fb_diagram_repeat1, 8013), (sym_identifier, 298),
     (aux_sym_ERR_unexpected_this_in_path_token1, 304),
     (aux_sym_ERR_unexpected_super_in_path_token1, 306), (sym_line_comment, 3),
     (anon_sym_LBRACE, 308), (aux_sym_test_pragma_token1, 9), (aux_sym_once_pragma_token1, 11),
     (aux_sym_must_call_pragma_token1, 13), (aux_sym_export_pragma_token1, 15),
     (anon_sym_SEMI, 310), (anon_sym_PERCENT, 312), (aux_sym_input_decls_token1, 314),
     (aux_sym_output_decls_token1, 316), (aux_sym_in_out_decls_token1, 318),
     (aux_sym_var_decls_token1, 320), (aux_sym_temp_var_decls_token1, 322),
     (aux_sym_external_var_decls_token1, 324), (aux_sym_global_var_decls_token1, 326),
     (aux_sym_fb_decl_token4, 1792), (aux_sym_method_decl_token1, 330),
     (aux_sym_prog_access_decls_token1, 332), (aux_sym_initial_step_token1, 334),
     (aux_sym_config_init_token1, 336), (aux_sym__stmt_token1, 340), (aux_sym__stmt_token2, 340),
     (aux_sym__stmt_token3, 340), (aux_sym_if_stmt_token1, 342), (aux_sym_case_stmt_token1, 344),
     (aux_sym_for_stmt_token1, 346), (aux_sym_while_stmt_token1, 348),
     (aux_sym_repeat_stmt_token1, 350), (aux_sym_raise_stmt_token1, 352),
     (aux_sym_try_stmt_token1, 354), (aux_sym_try_stmt_token2, 356),
     (aux_sym_catch_clause_token1, 356), (aux_sym_finally_clause_token1, 356), (sym_ld_rung, 358),
     (sym_fbd_network, 360), (sym_c_style_comment, 3), (sym_pascal_style_comment, 3),
     (sym_pragma, 3)]"

lemma ts_parse_row_731_scan: "row_scan tokens_63_2 0 ts_parse_row_731 = Some (Suc (Suc (Suc (Suc 0))))"
  unfolding ts_parse_row_731_def by simp

text \<open>Lines 137925 to 138037.\<close>

definition ts_parse_row_732 :: parse_row where
  "ts_parse_row_732 =
    [(sym_ERR_assign_func_call, 7530), (sym_ERR_unexpected_this_in_path, 2372),
     (sym_ERR_unexpected_super_in_path, 2372), (sym_ERR_fb_variables_after_method, 1715),
     (sym_ERR_var_access_not_allowed, 3160), (sym_ERR_var_config_not_allowed, 3160),
     (sym_ERR_var_global_not_allowed, 3160), (sym_ERR_method_decl_in_body, 3150),
     (sym_extern_pragma, 7490), (sym_wasm_pragma, 3150), (sym_warn_pragma, 7490),
     (sym_allow_pragma, 3140), (sym_test_pragma, 7490), (sym_once_pragma, 7490),
     (sym_must_call_pragma, 7490), (sym_export_pragma, 7490), (sym_pou_pragma, 7194),
     (sym_direct_variable, 7675), (sym_deref_expression, 2373), (sym_variable, 7599),
     (sym_var_access, 2373), (sym_in_out_decls, 3160), (sym_var_decls, 3160),
     (sym_retain_var_decls, 3160), (sym_temp_var_decls, 3160), (sym_external_var_decls, 3160),
     (sym_global_var_decls, 2947), (sym_loc_partly_var_decl, 3160), (sym__fb_variables, 2343),
     (sym_fb_input_decls, 3160), (sym_fb_output_decls, 3160), (sym_no_retain_var_decls, 3160),
     (sym_fb_body, 8907), (sym_method_decl, 2549), (sym_prog_access_decls, 3043), (sym_SFC, 7970),
     (sym_SFC_network, 7612), (sym_initial_step, 7439), (sym_config_init, 3047),
     (sym_variable_access, 7530), (sym_func_call, 2961), (sym_stmt_list, 7970), (sym__stmt, 2024),
     (sym_assign, 3150), (sym_if_stmt, 3150), (sym_case_stmt, 3150), (sym_for_stmt, 3150),
     (sym_while_stmt, 3150), (sym_repeat_stmt, 3150), (sym_raise_stmt, 3150), (sym_try_stmt, 3150),
     (sym_ERR_clause_outside_try, 3150), (sym_begin_path_expression, 2943), (sym_invocation, 2934),
     (sym_any_invocation, 2935), (sym_this_invocation, 2641), (sym_super_invocation, 2641),
     (sym_super_body_invocation, 2935), (sym_path_expression, 2627), (sym_field_expression, 2373),
     (sym_index_expression, 2373), (sym_ladder_diagram, 7970), (sym_fb_diagram, 7970),
     (aux_sym_ERR_fb_variables_after_method_repeat1, 2343), (aux_sym_func_decl_repeat1, 7194),
     (aux_sym_fb_decl_repeat3, 2549), (aux_sym_SFC_repeat1, 7612),
     (aux_sym_stmt_list_repeat1, 2024), (aux_sym_ladder_diagram_repeat1, 8009),
     (aux_sym_fb_diagram_repeat1, 8013), (sym_identifier, 298),
     (aux_sym_ERR_unexpected_this_in_path_token1, 304),
     (aux_sym_ERR_unexpected_super_in_path_token1, 306), (sym_line_comment, 3),
     (anon_sym_LBRACE, 308), (aux_sym_test_pragma_token1, 9), (aux_sym_once_pragma_token1, 11),
     (aux_sym_must_call_pragma_token1, 13), (aux_sym_export_pragma_token1, 15),
     (anon_sym_SEMI, 310), (anon_sym_PERCENT, 312), (aux_sym_input_decls_token1, 314),
     (aux_sym_output_decls_token1, 316), (aux_sym_in_out_decls_token1, 318),
     (aux_sym_var_decls_token1, 320), (aux_sym_temp_var_decls_token1, 322),
     (aux_sym_external_var_decls_token1, 324), (aux_sym_global_var_decls_token1, 326),
     (aux_sym_fb_decl_token4, 1794), (aux_sym_method_decl_token1, 330),
     (aux_sym_prog_access_decls_token1, 332), (aux_sym_initial_step_token1, 334),
     (aux_sym_config_init_token1, 336), (aux_sym__stmt_token1, 340), (aux_sym__stmt_token2, 340),
     (aux_sym__stmt_token3, 340), (aux_sym_if_stmt_token1, 342), (aux_sym_case_stmt_token1, 344),
     (aux_sym_for_stmt_token1, 346), (aux_sym_while_stmt_token1, 348),
     (aux_sym_repeat_stmt_token1, 350), (aux_sym_raise_stmt_token1, 352),
     (aux_sym_try_stmt_token1, 354), (aux_sym_try_stmt_token2, 356),
     (aux_sym_catch_clause_token1, 356), (aux_sym_finally_clause_token1, 356), (sym_ld_rung, 358),
     (sym_fbd_network, 360), (sym_c_style_comment, 3), (sym_pascal_style_comment, 3),
     (sym_pragma, 3)]"

lemma ts_parse_row_732_scan: "row_scan tokens_63_2 0 ts_parse_row_732 = Some (Suc (Suc (Suc (Suc 0))))"
  unfolding ts_parse_row_732_def by simp

text \<open>Lines 138038 to 138150.\<close>

definition ts_parse_row_733 :: parse_row where
  "ts_parse_row_733 =
    [(sym_ERR_assign_func_call, 7530), (sym_ERR_unexpected_this_in_path, 2372),
     (sym_ERR_unexpected_super_in_path, 2372), (sym_ERR_fb_variables_after_method, 1716),
     (sym_ERR_var_access_not_allowed, 3160), (sym_ERR_var_config_not_allowed, 3160),
     (sym_ERR_var_global_not_allowed, 3160), (sym_ERR_method_decl_in_body, 3150),
     (sym_extern_pragma, 7490), (sym_wasm_pragma, 3150), (sym_warn_pragma, 7490),
     (sym_allow_pragma, 3140), (sym_test_pragma, 7490), (sym_once_pragma, 7490),
     (sym_must_call_pragma, 7490), (sym_export_pragma, 7490), (sym_pou_pragma, 7194),
     (sym_direct_variable, 7675), (sym_deref_expression, 2373), (sym_variable, 7599),
     (sym_var_access, 2373), (sym_in_out_decls, 3160), (sym_var_decls, 3160),
     (sym_retain_var_decls, 3160), (sym_temp_var_decls, 3160), (sym_external_var_decls, 3160),
     (sym_global_var_decls, 2947), (sym_loc_partly_var_decl, 3160), (sym__fb_variables, 2347),
     (sym_fb_input_decls, 3160), (sym_fb_output_decls, 3160), (sym_no_retain_var_decls, 3160),
     (sym_fb_body, 8935), (sym_method_decl, 807), (sym_prog_access_decls, 3043), (sym_SFC, 7970),
     (sym_SFC_network, 7612), (sym_initial_step, 7439), (sym_config_init, 3047),
     (sym_variable_access, 7530), (sym_func_call, 2961), (sym_stmt_list, 7970), (sym__stmt, 2024),
     (sym_assign, 3150), (sym_if_stmt, 3150), (sym_case_stmt, 3150), (sym_for_stmt, 3150),
     (sym_while_stmt, 3150), (sym_repeat_stmt, 3150), (sym_raise_stmt, 3150), (sym_try_stmt, 3150),
     (sym_ERR_clause_outside_try, 3150), (sym_begin_path_expression, 2943), (sym_invocation, 2934),
     (sym_any_invocation, 2935), (sym_this_invocation, 2641), (sym_super_invocation, 2641),
     (sym_super_body_invocation, 2935), (sym_path_expression, 2627), (sym_field_expression, 2373),
     (sym_index_expression, 2373), (sym_ladder_diagram, 7970), (sym_fb_diagram, 7970),
     (aux_sym_ERR_fb_variables_after_method_repeat1, 2347), (aux_sym_func_decl_repeat1, 7194),
     (aux_sym_fb_decl_repeat3, 807), (aux_sym_SFC_repeat1, 7612), (aux_sym_stmt_list_repeat1, 2024),
     (aux_sym_ladder_diagram_repeat1, 8009), (aux_sym_fb_diagram_repeat1, 8013),
     (sym_identifier, 298), (aux_sym_ERR_unexpected_this_in_path_token1, 304),
     (aux_sym_ERR_unexpected_super_in_path_token1, 306), (sym_line_comment, 3),
     (anon_sym_LBRACE, 308), (aux_sym_test_pragma_token1, 9), (aux_sym_once_pragma_token1, 11),
     (aux_sym_must_call_pragma_token1, 13), (aux_sym_export_pragma_token1, 15),
     (anon_sym_SEMI, 310), (anon_sym_PERCENT, 312), (aux_sym_input_decls_token1, 314),
     (aux_sym_output_decls_token1, 316), (aux_sym_in_out_decls_token1, 318),
     (aux_sym_var_decls_token1, 320), (aux_sym_temp_var_decls_token1, 322),
     (aux_sym_external_var_decls_token1, 324), (aux_sym_global_var_decls_token1, 326),
     (aux_sym_fb_decl_token4, 1796), (aux_sym_method_decl_token1, 330),
     (aux_sym_prog_access_decls_token1, 332), (aux_sym_initial_step_token1, 334),
     (aux_sym_config_init_token1, 336), (aux_sym__stmt_token1, 340), (aux_sym__stmt_token2, 340),
     (aux_sym__stmt_token3, 340), (aux_sym_if_stmt_token1, 342), (aux_sym_case_stmt_token1, 344),
     (aux_sym_for_stmt_token1, 346), (aux_sym_while_stmt_token1, 348),
     (aux_sym_repeat_stmt_token1, 350), (aux_sym_raise_stmt_token1, 352),
     (aux_sym_try_stmt_token1, 354), (aux_sym_try_stmt_token2, 356),
     (aux_sym_catch_clause_token1, 356), (aux_sym_finally_clause_token1, 356), (sym_ld_rung, 358),
     (sym_fbd_network, 360), (sym_c_style_comment, 3), (sym_pascal_style_comment, 3),
     (sym_pragma, 3)]"

lemma ts_parse_row_733_scan: "row_scan tokens_63_2 0 ts_parse_row_733 = Some (Suc (Suc (Suc (Suc 0))))"
  unfolding ts_parse_row_733_def by simp

text \<open>Lines 138151 to 138263.\<close>

definition ts_parse_row_734 :: parse_row where
  "ts_parse_row_734 =
    [(sym_ERR_assign_func_call, 7530), (sym_ERR_unexpected_this_in_path, 2372),
     (sym_ERR_unexpected_super_in_path, 2372), (sym_ERR_fb_variables_after_method, 1717),
     (sym_ERR_var_access_not_allowed, 3160), (sym_ERR_var_config_not_allowed, 3160),
     (sym_ERR_var_global_not_allowed, 3160), (sym_ERR_method_decl_in_body, 3150),
     (sym_extern_pragma, 7490), (sym_wasm_pragma, 3150), (sym_warn_pragma, 7490),
     (sym_allow_pragma, 3140), (sym_test_pragma, 7490), (sym_once_pragma, 7490),
     (sym_must_call_pragma, 7490), (sym_export_pragma, 7490), (sym_pou_pragma, 7194),
     (sym_direct_variable, 7675), (sym_deref_expression, 2373), (sym_variable, 7599),
     (sym_var_access, 2373), (sym_in_out_decls, 3160), (sym_var_decls, 3160),
     (sym_retain_var_decls, 3160), (sym_temp_var_decls, 3160), (sym_external_var_decls, 3160),
     (sym_global_var_decls, 2947), (sym_loc_partly_var_decl, 3160), (sym__fb_variables, 2343),
     (sym_fb_input_decls, 3160), (sym_fb_output_decls, 3160), (sym_no_retain_var_decls, 3160),
     (sym_fb_body, 8950), (sym_method_decl, 2549), (sym_prog_access_decls, 3043), (sym_SFC, 7970),
     (sym_SFC_network, 7612), (sym_initial_step, 7439), (sym_config_init, 3047),
     (sym_variable_access, 7530), (sym_func_call, 2961), (sym_stmt_list, 7970), (sym__stmt, 2024),
     (sym_assign, 3150), (sym_if_stmt, 3150), (sym_case_stmt, 3150), (sym_for_stmt, 3150),
     (sym_while_stmt, 3150), (sym_repeat_stmt, 3150), (sym_raise_stmt, 3150), (sym_try_stmt, 3150),
     (sym_ERR_clause_outside_try, 3150), (sym_begin_path_expression, 2943), (sym_invocation, 2934),
     (sym_any_invocation, 2935), (sym_this_invocation, 2641), (sym_super_invocation, 2641),
     (sym_super_body_invocation, 2935), (sym_path_expression, 2627), (sym_field_expression, 2373),
     (sym_index_expression, 2373), (sym_ladder_diagram, 7970), (sym_fb_diagram, 7970),
     (aux_sym_ERR_fb_variables_after_method_repeat1, 2343), (aux_sym_func_decl_repeat1, 7194),
     (aux_sym_fb_decl_repeat3, 2549), (aux_sym_SFC_repeat1, 7612),
     (aux_sym_stmt_list_repeat1, 2024), (aux_sym_ladder_diagram_repeat1, 8009),
     (aux_sym_fb_diagram_repeat1, 8013), (sym_identifier, 298),
     (aux_sym_ERR_unexpected_this_in_path_token1, 304),
     (aux_sym_ERR_unexpected_super_in_path_token1, 306), (sym_line_comment, 3),
     (anon_sym_LBRACE, 308), (aux_sym_test_pragma_token1, 9), (aux_sym_once_pragma_token1, 11),
     (aux_sym_must_call_pragma_token1, 13), (aux_sym_export_pragma_token1, 15),
     (anon_sym_SEMI, 310), (anon_sym_PERCENT, 312), (aux_sym_input_decls_token1, 314),
     (aux_sym_output_decls_token1, 316), (aux_sym_in_out_decls_token1, 318),
     (aux_sym_var_decls_token1, 320), (aux_sym_temp_var_decls_token1, 322),
     (aux_sym_external_var_decls_token1, 324), (aux_sym_global_var_decls_token1, 326),
     (aux_sym_fb_decl_token4, 1798), (aux_sym_method_decl_token1, 330),
     (aux_sym_prog_access_decls_token1, 332), (aux_sym_initial_step_token1, 334),
     (aux_sym_config_init_token1, 336), (aux_sym__stmt_token1, 340), (aux_sym__stmt_token2, 340),
     (aux_sym__stmt_token3, 340), (aux_sym_if_stmt_token1, 342), (aux_sym_case_stmt_token1, 344),
     (aux_sym_for_stmt_token1, 346), (aux_sym_while_stmt_token1, 348),
     (aux_sym_repeat_stmt_token1, 350), (aux_sym_raise_stmt_token1, 352),
     (aux_sym_try_stmt_token1, 354), (aux_sym_try_stmt_token2, 356),
     (aux_sym_catch_clause_token1, 356), (aux_sym_finally_clause_token1, 356), (sym_ld_rung, 358),
     (sym_fbd_network, 360), (sym_c_style_comment, 3), (sym_pascal_style_comment, 3),
     (sym_pragma, 3)]"

lemma ts_parse_row_734_scan: "row_scan tokens_63_2 0 ts_parse_row_734 = Some (Suc (Suc (Suc (Suc 0))))"
  unfolding ts_parse_row_734_def by simp

text \<open>Lines 138264 to 138376.\<close>

definition ts_parse_row_735 :: parse_row where
  "ts_parse_row_735 =
    [(sym_ERR_assign_func_call, 7530), (sym_ERR_unexpected_this_in_path, 2372),
     (sym_ERR_unexpected_super_in_path, 2372), (sym_ERR_fb_variables_after_method, 1718),
     (sym_ERR_var_access_not_allowed, 3160), (sym_ERR_var_config_not_allowed, 3160),
     (sym_ERR_var_global_not_allowed, 3160), (sym_ERR_method_decl_in_body, 3150),
     (sym_extern_pragma, 7490), (sym_wasm_pragma, 3150), (sym_warn_pragma, 7490),
     (sym_allow_pragma, 3140), (sym_test_pragma, 7490), (sym_once_pragma, 7490),
     (sym_must_call_pragma, 7490), (sym_export_pragma, 7490), (sym_pou_pragma, 7194),
     (sym_direct_variable, 7675), (sym_deref_expression, 2373), (sym_variable, 7599),
     (sym_var_access, 2373), (sym_in_out_decls, 3160), (sym_var_decls, 3160),
     (sym_retain_var_decls, 3160), (sym_temp_var_decls, 3160), (sym_external_var_decls, 3160),
     (sym_global_var_decls, 2947), (sym_loc_partly_var_decl, 3160), (sym__fb_variables, 2343),
     (sym_fb_input_decls, 3160), (sym_fb_output_decls, 3160), (sym_no_retain_var_decls, 3160),
     (sym_fb_body, 9014), (sym_method_decl, 2549), (sym_prog_access_decls, 3043), (sym_SFC, 7970),
     (sym_SFC_network, 7612), (sym_initial_step, 7439), (sym_config_init, 3047),
     (sym_variable_access, 7530), (sym_func_call, 2961), (sym_stmt_list, 7970), (sym__stmt, 2024),
     (sym_assign, 3150), (sym_if_stmt, 3150), (sym_case_stmt, 3150), (sym_for_stmt, 3150),
     (sym_while_stmt, 3150), (sym_repeat_stmt, 3150), (sym_raise_stmt, 3150), (sym_try_stmt, 3150),
     (sym_ERR_clause_outside_try, 3150), (sym_begin_path_expression, 2943), (sym_invocation, 2934),
     (sym_any_invocation, 2935), (sym_this_invocation, 2641), (sym_super_invocation, 2641),
     (sym_super_body_invocation, 2935), (sym_path_expression, 2627), (sym_field_expression, 2373),
     (sym_index_expression, 2373), (sym_ladder_diagram, 7970), (sym_fb_diagram, 7970),
     (aux_sym_ERR_fb_variables_after_method_repeat1, 2343), (aux_sym_func_decl_repeat1, 7194),
     (aux_sym_fb_decl_repeat3, 2549), (aux_sym_SFC_repeat1, 7612),
     (aux_sym_stmt_list_repeat1, 2024), (aux_sym_ladder_diagram_repeat1, 8009),
     (aux_sym_fb_diagram_repeat1, 8013), (sym_identifier, 298),
     (aux_sym_ERR_unexpected_this_in_path_token1, 304),
     (aux_sym_ERR_unexpected_super_in_path_token1, 306), (sym_line_comment, 3),
     (anon_sym_LBRACE, 308), (aux_sym_test_pragma_token1, 9), (aux_sym_once_pragma_token1, 11),
     (aux_sym_must_call_pragma_token1, 13), (aux_sym_export_pragma_token1, 15),
     (anon_sym_SEMI, 310), (anon_sym_PERCENT, 312), (aux_sym_input_decls_token1, 314),
     (aux_sym_output_decls_token1, 316), (aux_sym_in_out_decls_token1, 318),
     (aux_sym_var_decls_token1, 320), (aux_sym_temp_var_decls_token1, 322),
     (aux_sym_external_var_decls_token1, 324), (aux_sym_global_var_decls_token1, 326),
     (aux_sym_fb_decl_token4, 1800), (aux_sym_method_decl_token1, 330),
     (aux_sym_prog_access_decls_token1, 332), (aux_sym_initial_step_token1, 334),
     (aux_sym_config_init_token1, 336), (aux_sym__stmt_token1, 340), (aux_sym__stmt_token2, 340),
     (aux_sym__stmt_token3, 340), (aux_sym_if_stmt_token1, 342), (aux_sym_case_stmt_token1, 344),
     (aux_sym_for_stmt_token1, 346), (aux_sym_while_stmt_token1, 348),
     (aux_sym_repeat_stmt_token1, 350), (aux_sym_raise_stmt_token1, 352),
     (aux_sym_try_stmt_token1, 354), (aux_sym_try_stmt_token2, 356),
     (aux_sym_catch_clause_token1, 356), (aux_sym_finally_clause_token1, 356), (sym_ld_rung, 358),
     (sym_fbd_network, 360), (sym_c_style_comment, 3), (sym_pascal_style_comment, 3),
     (sym_pragma, 3)]"

lemma ts_parse_row_735_scan: "row_scan tokens_63_2 0 ts_parse_row_735 = Some (Suc (Suc (Suc (Suc 0))))"
  unfolding ts_parse_row_735_def by simp

text \<open>Lines 138377 to 138489.\<close>

definition ts_parse_row_736 :: parse_row where
  "ts_parse_row_736 =
    [(sym_ERR_assign_func_call, 7530), (sym_ERR_unexpected_this_in_path, 2372),
     (sym_ERR_unexpected_super_in_path, 2372), (sym_ERR_fb_variables_after_method, 1719),
     (sym_ERR_var_access_not_allowed, 3160), (sym_ERR_var_config_not_allowed, 3160),
     (sym_ERR_var_global_not_allowed, 3160), (sym_ERR_method_decl_in_body, 3150),
     (sym_extern_pragma, 7490), (sym_wasm_pragma, 3150), (sym_warn_pragma, 7490),
     (sym_allow_pragma, 3140), (sym_test_pragma, 7490), (sym_once_pragma, 7490),
     (sym_must_call_pragma, 7490), (sym_export_pragma, 7490), (sym_pou_pragma, 7194),
     (sym_direct_variable, 7675), (sym_deref_expression, 2373), (sym_variable, 7599),
     (sym_var_access, 2373), (sym_in_out_decls, 3160), (sym_var_decls, 3160),
     (sym_retain_var_decls, 3160), (sym_temp_var_decls, 3160), (sym_external_var_decls, 3160),
     (sym_global_var_decls, 2947), (sym_loc_partly_var_decl, 3160), (sym__fb_variables, 2343),
     (sym_fb_input_decls, 3160), (sym_fb_output_decls, 3160), (sym_no_retain_var_decls, 3160),
     (sym_fb_body, 9045), (sym_method_decl, 2549), (sym_prog_access_decls, 3043), (sym_SFC, 7970),
     (sym_SFC_network, 7612), (sym_initial_step, 7439), (sym_config_init, 3047),
     (sym_variable_access, 7530), (sym_func_call, 2961), (sym_stmt_list, 7970), (sym__stmt, 2024),
     (sym_assign, 3150), (sym_if_stmt, 3150), (sym_case_stmt, 3150), (sym_for_stmt, 3150),
     (sym_while_stmt, 3150), (sym_repeat_stmt, 3150), (sym_raise_stmt, 3150), (sym_try_stmt, 3150),
     (sym_ERR_clause_outside_try, 3150), (sym_begin_path_expression, 2943), (sym_invocation, 2934),
     (sym_any_invocation, 2935), (sym_this_invocation, 2641), (sym_super_invocation, 2641),
     (sym_super_body_invocation, 2935), (sym_path_expression, 2627), (sym_field_expression, 2373),
     (sym_index_expression, 2373), (sym_ladder_diagram, 7970), (sym_fb_diagram, 7970),
     (aux_sym_ERR_fb_variables_after_method_repeat1, 2343), (aux_sym_func_decl_repeat1, 7194),
     (aux_sym_fb_decl_repeat3, 2549), (aux_sym_SFC_repeat1, 7612),
     (aux_sym_stmt_list_repeat1, 2024), (aux_sym_ladder_diagram_repeat1, 8009),
     (aux_sym_fb_diagram_repeat1, 8013), (sym_identifier, 298),
     (aux_sym_ERR_unexpected_this_in_path_token1, 304),
     (aux_sym_ERR_unexpected_super_in_path_token1, 306), (sym_line_comment, 3),
     (anon_sym_LBRACE, 308), (aux_sym_test_pragma_token1, 9), (aux_sym_once_pragma_token1, 11),
     (aux_sym_must_call_pragma_token1, 13), (aux_sym_export_pragma_token1, 15),
     (anon_sym_SEMI, 310), (anon_sym_PERCENT, 312), (aux_sym_input_decls_token1, 314),
     (aux_sym_output_decls_token1, 316), (aux_sym_in_out_decls_token1, 318),
     (aux_sym_var_decls_token1, 320), (aux_sym_temp_var_decls_token1, 322),
     (aux_sym_external_var_decls_token1, 324), (aux_sym_global_var_decls_token1, 326),
     (aux_sym_fb_decl_token4, 1802), (aux_sym_method_decl_token1, 330),
     (aux_sym_prog_access_decls_token1, 332), (aux_sym_initial_step_token1, 334),
     (aux_sym_config_init_token1, 336), (aux_sym__stmt_token1, 340), (aux_sym__stmt_token2, 340),
     (aux_sym__stmt_token3, 340), (aux_sym_if_stmt_token1, 342), (aux_sym_case_stmt_token1, 344),
     (aux_sym_for_stmt_token1, 346), (aux_sym_while_stmt_token1, 348),
     (aux_sym_repeat_stmt_token1, 350), (aux_sym_raise_stmt_token1, 352),
     (aux_sym_try_stmt_token1, 354), (aux_sym_try_stmt_token2, 356),
     (aux_sym_catch_clause_token1, 356), (aux_sym_finally_clause_token1, 356), (sym_ld_rung, 358),
     (sym_fbd_network, 360), (sym_c_style_comment, 3), (sym_pascal_style_comment, 3),
     (sym_pragma, 3)]"

lemma ts_parse_row_736_scan: "row_scan tokens_63_2 0 ts_parse_row_736 = Some (Suc (Suc (Suc (Suc 0))))"
  unfolding ts_parse_row_736_def by simp

text \<open>Lines 138490 to 138602.\<close>

definition ts_parse_row_737 :: parse_row where
  "ts_parse_row_737 =
    [(sym_ERR_assign_func_call, 7530), (sym_ERR_unexpected_this_in_path, 2372),
     (sym_ERR_unexpected_super_in_path, 2372), (sym_ERR_fb_variables_after_method, 1720),
     (sym_ERR_var_access_not_allowed, 3160), (sym_ERR_var_config_not_allowed, 3160),
     (sym_ERR_var_global_not_allowed, 3160), (sym_ERR_method_decl_in_body, 3150),
     (sym_extern_pragma, 7490), (sym_wasm_pragma, 3150), (sym_warn_pragma, 7490),
     (sym_allow_pragma, 3140), (sym_test_pragma, 7490), (sym_once_pragma, 7490),
     (sym_must_call_pragma, 7490), (sym_export_pragma, 7490), (sym_pou_pragma, 7194),
     (sym_direct_variable, 7675), (sym_deref_expression, 2373), (sym_variable, 7599),
     (sym_var_access, 2373), (sym_in_out_decls, 3160), (sym_var_decls, 3160),
     (sym_retain_var_decls, 3160), (sym_temp_var_decls, 3160), (sym_external_var_decls, 3160),
     (sym_global_var_decls, 2947), (sym_loc_partly_var_decl, 3160), (sym__fb_variables, 2347),
     (sym_fb_input_decls, 3160), (sym_fb_output_decls, 3160), (sym_no_retain_var_decls, 3160),
     (sym_fb_body, 9061), (sym_method_decl, 808), (sym_prog_access_decls, 3043), (sym_SFC, 7970),
     (sym_SFC_network, 7612), (sym_initial_step, 7439), (sym_config_init, 3047),
     (sym_variable_access, 7530), (sym_func_call, 2961), (sym_stmt_list, 7970), (sym__stmt, 2024),
     (sym_assign, 3150), (sym_if_stmt, 3150), (sym_case_stmt, 3150), (sym_for_stmt, 3150),
     (sym_while_stmt, 3150), (sym_repeat_stmt, 3150), (sym_raise_stmt, 3150), (sym_try_stmt, 3150),
     (sym_ERR_clause_outside_try, 3150), (sym_begin_path_expression, 2943), (sym_invocation, 2934),
     (sym_any_invocation, 2935), (sym_this_invocation, 2641), (sym_super_invocation, 2641),
     (sym_super_body_invocation, 2935), (sym_path_expression, 2627), (sym_field_expression, 2373),
     (sym_index_expression, 2373), (sym_ladder_diagram, 7970), (sym_fb_diagram, 7970),
     (aux_sym_ERR_fb_variables_after_method_repeat1, 2347), (aux_sym_func_decl_repeat1, 7194),
     (aux_sym_fb_decl_repeat3, 808), (aux_sym_SFC_repeat1, 7612), (aux_sym_stmt_list_repeat1, 2024),
     (aux_sym_ladder_diagram_repeat1, 8009), (aux_sym_fb_diagram_repeat1, 8013),
     (sym_identifier, 298), (aux_sym_ERR_unexpected_this_in_path_token1, 304),
     (aux_sym_ERR_unexpected_super_in_path_token1, 306), (sym_line_comment, 3),
     (anon_sym_LBRACE, 308), (aux_sym_test_pragma_token1, 9), (aux_sym_once_pragma_token1, 11),
     (aux_sym_must_call_pragma_token1, 13), (aux_sym_export_pragma_token1, 15),
     (anon_sym_SEMI, 310), (anon_sym_PERCENT, 312), (aux_sym_input_decls_token1, 314),
     (aux_sym_output_decls_token1, 316), (aux_sym_in_out_decls_token1, 318),
     (aux_sym_var_decls_token1, 320), (aux_sym_temp_var_decls_token1, 322),
     (aux_sym_external_var_decls_token1, 324), (aux_sym_global_var_decls_token1, 326),
     (aux_sym_fb_decl_token4, 1804), (aux_sym_method_decl_token1, 330),
     (aux_sym_prog_access_decls_token1, 332), (aux_sym_initial_step_token1, 334),
     (aux_sym_config_init_token1, 336), (aux_sym__stmt_token1, 340), (aux_sym__stmt_token2, 340),
     (aux_sym__stmt_token3, 340), (aux_sym_if_stmt_token1, 342), (aux_sym_case_stmt_token1, 344),
     (aux_sym_for_stmt_token1, 346), (aux_sym_while_stmt_token1, 348),
     (aux_sym_repeat_stmt_token1, 350), (aux_sym_raise_stmt_token1, 352),
     (aux_sym_try_stmt_token1, 354), (aux_sym_try_stmt_token2, 356),
     (aux_sym_catch_clause_token1, 356), (aux_sym_finally_clause_token1, 356), (sym_ld_rung, 358),
     (sym_fbd_network, 360), (sym_c_style_comment, 3), (sym_pascal_style_comment, 3),
     (sym_pragma, 3)]"

lemma ts_parse_row_737_scan: "row_scan tokens_63_2 0 ts_parse_row_737 = Some (Suc (Suc (Suc (Suc 0))))"
  unfolding ts_parse_row_737_def by simp

text \<open>Lines 138603 to 138715.\<close>

definition ts_parse_row_738 :: parse_row where
  "ts_parse_row_738 =
    [(sym_ERR_assign_func_call, 7530), (sym_ERR_unexpected_this_in_path, 2372),
     (sym_ERR_unexpected_super_in_path, 2372), (sym_ERR_fb_variables_after_method, 1722),
     (sym_ERR_var_access_not_allowed, 3160), (sym_ERR_var_config_not_allowed, 3160),
     (sym_ERR_var_global_not_allowed, 3160), (sym_ERR_method_decl_in_body, 3150),
     (sym_extern_pragma, 7490), (sym_wasm_pragma, 3150), (sym_warn_pragma, 7490),
     (sym_allow_pragma, 3140), (sym_test_pragma, 7490), (sym_once_pragma, 7490),
     (sym_must_call_pragma, 7490), (sym_export_pragma, 7490), (sym_pou_pragma, 7194),
     (sym_direct_variable, 7675), (sym_deref_expression, 2373), (sym_variable, 7599),
     (sym_var_access, 2373), (sym_in_out_decls, 3160), (sym_var_decls, 3160),
     (sym_retain_var_decls, 3160), (sym_temp_var_decls, 3160), (sym_external_var_decls, 3160),
     (sym_global_var_decls, 2947), (sym_loc_partly_var_decl, 3160), (sym__fb_variables, 2343),
     (sym_fb_input_decls, 3160), (sym_fb_output_decls, 3160), (sym_no_retain_var_decls, 3160),
     (sym_fb_body, 9077), (sym_method_decl, 2549), (sym_prog_access_decls, 3043), (sym_SFC, 7970),
     (sym_SFC_network, 7612), (sym_initial_step, 7439), (sym_config_init, 3047),
     (sym_variable_access, 7530), (sym_func_call, 2961), (sym_stmt_list, 7970), (sym__stmt, 2024),
     (sym_assign, 3150), (sym_if_stmt, 3150), (sym_case_stmt, 3150), (sym_for_stmt, 3150),
     (sym_while_stmt, 3150), (sym_repeat_stmt, 3150), (sym_raise_stmt, 3150), (sym_try_stmt, 3150),
     (sym_ERR_clause_outside_try, 3150), (sym_begin_path_expression, 2943), (sym_invocation, 2934),
     (sym_any_invocation, 2935), (sym_this_invocation, 2641), (sym_super_invocation, 2641),
     (sym_super_body_invocation, 2935), (sym_path_expression, 2627), (sym_field_expression, 2373),
     (sym_index_expression, 2373), (sym_ladder_diagram, 7970), (sym_fb_diagram, 7970),
     (aux_sym_ERR_fb_variables_after_method_repeat1, 2343), (aux_sym_func_decl_repeat1, 7194),
     (aux_sym_fb_decl_repeat3, 2549), (aux_sym_SFC_repeat1, 7612),
     (aux_sym_stmt_list_repeat1, 2024), (aux_sym_ladder_diagram_repeat1, 8009),
     (aux_sym_fb_diagram_repeat1, 8013), (sym_identifier, 298),
     (aux_sym_ERR_unexpected_this_in_path_token1, 304),
     (aux_sym_ERR_unexpected_super_in_path_token1, 306), (sym_line_comment, 3),
     (anon_sym_LBRACE, 308), (aux_sym_test_pragma_token1, 9), (aux_sym_once_pragma_token1, 11),
     (aux_sym_must_call_pragma_token1, 13), (aux_sym_export_pragma_token1, 15),
     (anon_sym_SEMI, 310), (anon_sym_PERCENT, 312), (aux_sym_input_decls_token1, 314),
     (aux_sym_output_decls_token1, 316), (aux_sym_in_out_decls_token1, 318),
     (aux_sym_var_decls_token1, 320), (aux_sym_temp_var_decls_token1, 322),
     (aux_sym_external_var_decls_token1, 324), (aux_sym_global_var_decls_token1, 326),
     (aux_sym_fb_decl_token4, 1806), (aux_sym_method_decl_token1, 330),
     (aux_sym_prog_access_decls_token1, 332), (aux_sym_initial_step_token1, 334),
     (aux_sym_config_init_token1, 336), (aux_sym__stmt_token1, 340), (aux_sym__stmt_token2, 340),
     (aux_sym__stmt_token3, 340), (aux_sym_if_stmt_token1, 342), (aux_sym_case_stmt_token1, 344),
     (aux_sym_for_stmt_token1, 346), (aux_sym_while_stmt_token1, 348),
     (aux_sym_repeat_stmt_token1, 350), (aux_sym_raise_stmt_token1, 352),
     (aux_sym_try_stmt_token1, 354), (aux_sym_try_stmt_token2, 356),
     (aux_sym_catch_clause_token1, 356), (aux_sym_finally_clause_token1, 356), (sym_ld_rung, 358),
     (sym_fbd_network, 360), (sym_c_style_comment, 3), (sym_pascal_style_comment, 3),
     (sym_pragma, 3)]"

lemma ts_parse_row_738_scan: "row_scan tokens_63_2 0 ts_parse_row_738 = Some (Suc (Suc (Suc (Suc 0))))"
  unfolding ts_parse_row_738_def by simp

text \<open>Lines 138716 to 138828.\<close>

definition ts_parse_row_739 :: parse_row where
  "ts_parse_row_739 =
    [(sym_ERR_assign_func_call, 7530), (sym_ERR_unexpected_this_in_path, 2372),
     (sym_ERR_unexpected_super_in_path, 2372), (sym_ERR_fb_variables_after_method, 1723),
     (sym_ERR_var_access_not_allowed, 3160), (sym_ERR_var_config_not_allowed, 3160),
     (sym_ERR_var_global_not_allowed, 3160), (sym_ERR_method_decl_in_body, 3150),
     (sym_extern_pragma, 7490), (sym_wasm_pragma, 3150), (sym_warn_pragma, 7490),
     (sym_allow_pragma, 3140), (sym_test_pragma, 7490), (sym_once_pragma, 7490),
     (sym_must_call_pragma, 7490), (sym_export_pragma, 7490), (sym_pou_pragma, 7194),
     (sym_direct_variable, 7675), (sym_deref_expression, 2373), (sym_variable, 7599),
     (sym_var_access, 2373), (sym_in_out_decls, 3160), (sym_var_decls, 3160),
     (sym_retain_var_decls, 3160), (sym_temp_var_decls, 3160), (sym_external_var_decls, 3160),
     (sym_global_var_decls, 2947), (sym_loc_partly_var_decl, 3160), (sym__fb_variables, 2343),
     (sym_fb_input_decls, 3160), (sym_fb_output_decls, 3160), (sym_no_retain_var_decls, 3160),
     (sym_fb_body, 9248), (sym_method_decl, 2549), (sym_prog_access_decls, 3043), (sym_SFC, 7970),
     (sym_SFC_network, 7612), (sym_initial_step, 7439), (sym_config_init, 3047),
     (sym_variable_access, 7530), (sym_func_call, 2961), (sym_stmt_list, 7970), (sym__stmt, 2024),
     (sym_assign, 3150), (sym_if_stmt, 3150), (sym_case_stmt, 3150), (sym_for_stmt, 3150),
     (sym_while_stmt, 3150), (sym_repeat_stmt, 3150), (sym_raise_stmt, 3150), (sym_try_stmt, 3150),
     (sym_ERR_clause_outside_try, 3150), (sym_begin_path_expression, 2943), (sym_invocation, 2934),
     (sym_any_invocation, 2935), (sym_this_invocation, 2641), (sym_super_invocation, 2641),
     (sym_super_body_invocation, 2935), (sym_path_expression, 2627), (sym_field_expression, 2373),
     (sym_index_expression, 2373), (sym_ladder_diagram, 7970), (sym_fb_diagram, 7970),
     (aux_sym_ERR_fb_variables_after_method_repeat1, 2343), (aux_sym_func_decl_repeat1, 7194),
     (aux_sym_fb_decl_repeat3, 2549), (aux_sym_SFC_repeat1, 7612),
     (aux_sym_stmt_list_repeat1, 2024), (aux_sym_ladder_diagram_repeat1, 8009),
     (aux_sym_fb_diagram_repeat1, 8013), (sym_identifier, 298),
     (aux_sym_ERR_unexpected_this_in_path_token1, 304),
     (aux_sym_ERR_unexpected_super_in_path_token1, 306), (sym_line_comment, 3),
     (anon_sym_LBRACE, 308), (aux_sym_test_pragma_token1, 9), (aux_sym_once_pragma_token1, 11),
     (aux_sym_must_call_pragma_token1, 13), (aux_sym_export_pragma_token1, 15),
     (anon_sym_SEMI, 310), (anon_sym_PERCENT, 312), (aux_sym_input_decls_token1, 314),
     (aux_sym_output_decls_token1, 316), (aux_sym_in_out_decls_token1, 318),
     (aux_sym_var_decls_token1, 320), (aux_sym_temp_var_decls_token1, 322),
     (aux_sym_external_var_decls_token1, 324), (aux_sym_global_var_decls_token1, 326),
     (aux_sym_fb_decl_token4, 1808), (aux_sym_method_decl_token1, 330),
     (aux_sym_prog_access_decls_token1, 332), (aux_sym_initial_step_token1, 334),
     (aux_sym_config_init_token1, 336), (aux_sym__stmt_token1, 340), (aux_sym__stmt_token2, 340),
     (aux_sym__stmt_token3, 340), (aux_sym_if_stmt_token1, 342), (aux_sym_case_stmt_token1, 344),
     (aux_sym_for_stmt_token1, 346), (aux_sym_while_stmt_token1, 348),
     (aux_sym_repeat_stmt_token1, 350), (aux_sym_raise_stmt_token1, 352),
     (aux_sym_try_stmt_token1, 354), (aux_sym_try_stmt_token2, 356),
     (aux_sym_catch_clause_token1, 356), (aux_sym_finally_clause_token1, 356), (sym_ld_rung, 358),
     (sym_fbd_network, 360), (sym_c_style_comment, 3), (sym_pascal_style_comment, 3),
     (sym_pragma, 3)]"

lemma ts_parse_row_739_scan: "row_scan tokens_63_2 0 ts_parse_row_739 = Some (Suc (Suc (Suc (Suc 0))))"
  unfolding ts_parse_row_739_def by simp

text \<open>Lines 138829 to 138941.\<close>

definition ts_parse_row_740 :: parse_row where
  "ts_parse_row_740 =
    [(sym_ERR_assign_func_call, 7530), (sym_ERR_unexpected_this_in_path, 2372),
     (sym_ERR_unexpected_super_in_path, 2372), (sym_ERR_fb_variables_after_method, 1724),
     (sym_ERR_var_access_not_allowed, 3160), (sym_ERR_var_config_not_allowed, 3160),
     (sym_ERR_var_global_not_allowed, 3160), (sym_ERR_method_decl_in_body, 3150),
     (sym_extern_pragma, 7490), (sym_wasm_pragma, 3150), (sym_warn_pragma, 7490),
     (sym_allow_pragma, 3140), (sym_test_pragma, 7490), (sym_once_pragma, 7490),
     (sym_must_call_pragma, 7490), (sym_export_pragma, 7490), (sym_pou_pragma, 7194),
     (sym_direct_variable, 7675), (sym_deref_expression, 2373), (sym_variable, 7599),
     (sym_var_access, 2373), (sym_in_out_decls, 3160), (sym_var_decls, 3160),
     (sym_retain_var_decls, 3160), (sym_temp_var_decls, 3160), (sym_external_var_decls, 3160),
     (sym_global_var_decls, 2947), (sym_loc_partly_var_decl, 3160), (sym__fb_variables, 2343),
     (sym_fb_input_decls, 3160), (sym_fb_output_decls, 3160), (sym_no_retain_var_decls, 3160),
     (sym_fb_body, 9292), (sym_method_decl, 2549), (sym_prog_access_decls, 3043), (sym_SFC, 7970),
     (sym_SFC_network, 7612), (sym_initial_step, 7439), (sym_config_init, 3047),
     (sym_variable_access, 7530), (sym_func_call, 2961), (sym_stmt_list, 7970), (sym__stmt, 2024),
     (sym_assign, 3150), (sym_if_stmt, 3150), (sym_case_stmt, 3150), (sym_for_stmt, 3150),
     (sym_while_stmt, 3150), (sym_repeat_stmt, 3150), (sym_raise_stmt, 3150), (sym_try_stmt, 3150),
     (sym_ERR_clause_outside_try, 3150), (sym_begin_path_expression, 2943), (sym_invocation, 2934),
     (sym_any_invocation, 2935), (sym_this_invocation, 2641), (sym_super_invocation, 2641),
     (sym_super_body_invocation, 2935), (sym_path_expression, 2627), (sym_field_expression, 2373),
     (sym_index_expression, 2373), (sym_ladder_diagram, 7970), (sym_fb_diagram, 7970),
     (aux_sym_ERR_fb_variables_after_method_repeat1, 2343), (aux_sym_func_decl_repeat1, 7194),
     (aux_sym_fb_decl_repeat3, 2549), (aux_sym_SFC_repeat1, 7612),
     (aux_sym_stmt_list_repeat1, 2024), (aux_sym_ladder_diagram_repeat1, 8009),
     (aux_sym_fb_diagram_repeat1, 8013), (sym_identifier, 298),
     (aux_sym_ERR_unexpected_this_in_path_token1, 304),
     (aux_sym_ERR_unexpected_super_in_path_token1, 306), (sym_line_comment, 3),
     (anon_sym_LBRACE, 308), (aux_sym_test_pragma_token1, 9), (aux_sym_once_pragma_token1, 11),
     (aux_sym_must_call_pragma_token1, 13), (aux_sym_export_pragma_token1, 15),
     (anon_sym_SEMI, 310), (anon_sym_PERCENT, 312), (aux_sym_input_decls_token1, 314),
     (aux_sym_output_decls_token1, 316), (aux_sym_in_out_decls_token1, 318),
     (aux_sym_var_decls_token1, 320), (aux_sym_temp_var_decls_token1, 322),
     (aux_sym_external_var_decls_token1, 324), (aux_sym_global_var_decls_token1, 326),
     (aux_sym_fb_decl_token4, 1810), (aux_sym_method_decl_token1, 330),
     (aux_sym_prog_access_decls_token1, 332), (aux_sym_initial_step_token1, 334),
     (aux_sym_config_init_token1, 336), (aux_sym__stmt_token1, 340), (aux_sym__stmt_token2, 340),
     (aux_sym__stmt_token3, 340), (aux_sym_if_stmt_token1, 342), (aux_sym_case_stmt_token1, 344),
     (aux_sym_for_stmt_token1, 346), (aux_sym_while_stmt_token1, 348),
     (aux_sym_repeat_stmt_token1, 350), (aux_sym_raise_stmt_token1, 352),
     (aux_sym_try_stmt_token1, 354), (aux_sym_try_stmt_token2, 356),
     (aux_sym_catch_clause_token1, 356), (aux_sym_finally_clause_token1, 356), (sym_ld_rung, 358),
     (sym_fbd_network, 360), (sym_c_style_comment, 3), (sym_pascal_style_comment, 3),
     (sym_pragma, 3)]"

lemma ts_parse_row_740_scan: "row_scan tokens_63_2 0 ts_parse_row_740 = Some (Suc (Suc (Suc (Suc 0))))"
  unfolding ts_parse_row_740_def by simp

text \<open>Lines 138942 to 139054.\<close>

definition ts_parse_row_741 :: parse_row where
  "ts_parse_row_741 =
    [(sym_ERR_assign_func_call, 7530), (sym_ERR_unexpected_this_in_path, 2372),
     (sym_ERR_unexpected_super_in_path, 2372), (sym_ERR_fb_variables_after_method, 1725),
     (sym_ERR_var_access_not_allowed, 3160), (sym_ERR_var_config_not_allowed, 3160),
     (sym_ERR_var_global_not_allowed, 3160), (sym_ERR_method_decl_in_body, 3150),
     (sym_extern_pragma, 7490), (sym_wasm_pragma, 3150), (sym_warn_pragma, 7490),
     (sym_allow_pragma, 3140), (sym_test_pragma, 7490), (sym_once_pragma, 7490),
     (sym_must_call_pragma, 7490), (sym_export_pragma, 7490), (sym_pou_pragma, 7194),
     (sym_direct_variable, 7675), (sym_deref_expression, 2373), (sym_variable, 7599),
     (sym_var_access, 2373), (sym_in_out_decls, 3160), (sym_var_decls, 3160),
     (sym_retain_var_decls, 3160), (sym_temp_var_decls, 3160), (sym_external_var_decls, 3160),
     (sym_global_var_decls, 2947), (sym_loc_partly_var_decl, 3160), (sym__fb_variables, 2343),
     (sym_fb_input_decls, 3160), (sym_fb_output_decls, 3160), (sym_no_retain_var_decls, 3160),
     (sym_fb_body, 9313), (sym_method_decl, 2549), (sym_prog_access_decls, 3043), (sym_SFC, 7970),
     (sym_SFC_network, 7612), (sym_initial_step, 7439), (sym_config_init, 3047),
     (sym_variable_access, 7530), (sym_func_call, 2961), (sym_stmt_list, 7970), (sym__stmt, 2024),
     (sym_assign, 3150), (sym_if_stmt, 3150), (sym_case_stmt, 3150), (sym_for_stmt, 3150),
     (sym_while_stmt, 3150), (sym_repeat_stmt, 3150), (sym_raise_stmt, 3150), (sym_try_stmt, 3150),
     (sym_ERR_clause_outside_try, 3150), (sym_begin_path_expression, 2943), (sym_invocation, 2934),
     (sym_any_invocation, 2935), (sym_this_invocation, 2641), (sym_super_invocation, 2641),
     (sym_super_body_invocation, 2935), (sym_path_expression, 2627), (sym_field_expression, 2373),
     (sym_index_expression, 2373), (sym_ladder_diagram, 7970), (sym_fb_diagram, 7970),
     (aux_sym_ERR_fb_variables_after_method_repeat1, 2343), (aux_sym_func_decl_repeat1, 7194),
     (aux_sym_fb_decl_repeat3, 2549), (aux_sym_SFC_repeat1, 7612),
     (aux_sym_stmt_list_repeat1, 2024), (aux_sym_ladder_diagram_repeat1, 8009),
     (aux_sym_fb_diagram_repeat1, 8013), (sym_identifier, 298),
     (aux_sym_ERR_unexpected_this_in_path_token1, 304),
     (aux_sym_ERR_unexpected_super_in_path_token1, 306), (sym_line_comment, 3),
     (anon_sym_LBRACE, 308), (aux_sym_test_pragma_token1, 9), (aux_sym_once_pragma_token1, 11),
     (aux_sym_must_call_pragma_token1, 13), (aux_sym_export_pragma_token1, 15),
     (anon_sym_SEMI, 310), (anon_sym_PERCENT, 312), (aux_sym_input_decls_token1, 314),
     (aux_sym_output_decls_token1, 316), (aux_sym_in_out_decls_token1, 318),
     (aux_sym_var_decls_token1, 320), (aux_sym_temp_var_decls_token1, 322),
     (aux_sym_external_var_decls_token1, 324), (aux_sym_global_var_decls_token1, 326),
     (aux_sym_fb_decl_token4, 1812), (aux_sym_method_decl_token1, 330),
     (aux_sym_prog_access_decls_token1, 332), (aux_sym_initial_step_token1, 334),
     (aux_sym_config_init_token1, 336), (aux_sym__stmt_token1, 340), (aux_sym__stmt_token2, 340),
     (aux_sym__stmt_token3, 340), (aux_sym_if_stmt_token1, 342), (aux_sym_case_stmt_token1, 344),
     (aux_sym_for_stmt_token1, 346), (aux_sym_while_stmt_token1, 348),
     (aux_sym_repeat_stmt_token1, 350), (aux_sym_raise_stmt_token1, 352),
     (aux_sym_try_stmt_token1, 354), (aux_sym_try_stmt_token2, 356),
     (aux_sym_catch_clause_token1, 356), (aux_sym_finally_clause_token1, 356), (sym_ld_rung, 358),
     (sym_fbd_network, 360), (sym_c_style_comment, 3), (sym_pascal_style_comment, 3),
     (sym_pragma, 3)]"

lemma ts_parse_row_741_scan: "row_scan tokens_63_2 0 ts_parse_row_741 = Some (Suc (Suc (Suc (Suc 0))))"
  unfolding ts_parse_row_741_def by simp

text \<open>Lines 139055 to 139167.\<close>

definition ts_parse_row_742 :: parse_row where
  "ts_parse_row_742 =
    [(sym_ERR_assign_func_call, 7530), (sym_ERR_unexpected_this_in_path, 2372),
     (sym_ERR_unexpected_super_in_path, 2372), (sym_ERR_fb_variables_after_method, 1726),
     (sym_ERR_var_access_not_allowed, 3160), (sym_ERR_var_config_not_allowed, 3160),
     (sym_ERR_var_global_not_allowed, 3160), (sym_ERR_method_decl_in_body, 3150),
     (sym_extern_pragma, 7490), (sym_wasm_pragma, 3150), (sym_warn_pragma, 7490),
     (sym_allow_pragma, 3140), (sym_test_pragma, 7490), (sym_once_pragma, 7490),
     (sym_must_call_pragma, 7490), (sym_export_pragma, 7490), (sym_pou_pragma, 7194),
     (sym_direct_variable, 7675), (sym_deref_expression, 2373), (sym_variable, 7599),
     (sym_var_access, 2373), (sym_in_out_decls, 3160), (sym_var_decls, 3160),
     (sym_retain_var_decls, 3160), (sym_temp_var_decls, 3160), (sym_external_var_decls, 3160),
     (sym_global_var_decls, 2947), (sym_loc_partly_var_decl, 3160), (sym__fb_variables, 2347),
     (sym_fb_input_decls, 3160), (sym_fb_output_decls, 3160), (sym_no_retain_var_decls, 3160),
     (sym_fb_body, 9323), (sym_method_decl, 809), (sym_prog_access_decls, 3043), (sym_SFC, 7970),
     (sym_SFC_network, 7612), (sym_initial_step, 7439), (sym_config_init, 3047),
     (sym_variable_access, 7530), (sym_func_call, 2961), (sym_stmt_list, 7970), (sym__stmt, 2024),
     (sym_assign, 3150), (sym_if_stmt, 3150), (sym_case_stmt, 3150), (sym_for_stmt, 3150),
     (sym_while_stmt, 3150), (sym_repeat_stmt, 3150), (sym_raise_stmt, 3150), (sym_try_stmt, 3150),
     (sym_ERR_clause_outside_try, 3150), (sym_begin_path_expression, 2943), (sym_invocation, 2934),
     (sym_any_invocation, 2935), (sym_this_invocation, 2641), (sym_super_invocation, 2641),
     (sym_super_body_invocation, 2935), (sym_path_expression, 2627), (sym_field_expression, 2373),
     (sym_index_expression, 2373), (sym_ladder_diagram, 7970), (sym_fb_diagram, 7970),
     (aux_sym_ERR_fb_variables_after_method_repeat1, 2347), (aux_sym_func_decl_repeat1, 7194),
     (aux_sym_fb_decl_repeat3, 809), (aux_sym_SFC_repeat1, 7612), (aux_sym_stmt_list_repeat1, 2024),
     (aux_sym_ladder_diagram_repeat1, 8009), (aux_sym_fb_diagram_repeat1, 8013),
     (sym_identifier, 298), (aux_sym_ERR_unexpected_this_in_path_token1, 304),
     (aux_sym_ERR_unexpected_super_in_path_token1, 306), (sym_line_comment, 3),
     (anon_sym_LBRACE, 308), (aux_sym_test_pragma_token1, 9), (aux_sym_once_pragma_token1, 11),
     (aux_sym_must_call_pragma_token1, 13), (aux_sym_export_pragma_token1, 15),
     (anon_sym_SEMI, 310), (anon_sym_PERCENT, 312), (aux_sym_input_decls_token1, 314),
     (aux_sym_output_decls_token1, 316), (aux_sym_in_out_decls_token1, 318),
     (aux_sym_var_decls_token1, 320), (aux_sym_temp_var_decls_token1, 322),
     (aux_sym_external_var_decls_token1, 324), (aux_sym_global_var_decls_token1, 326),
     (aux_sym_fb_decl_token4, 1814), (aux_sym_method_decl_token1, 330),
     (aux_sym_prog_access_decls_token1, 332), (aux_sym_initial_step_token1, 334),
     (aux_sym_config_init_token1, 336), (aux_sym__stmt_token1, 340), (aux_sym__stmt_token2, 340),
     (aux_sym__stmt_token3, 340), (aux_sym_if_stmt_token1, 342), (aux_sym_case_stmt_token1, 344),
     (aux_sym_for_stmt_token1, 346), (aux_sym_while_stmt_token1, 348),
     (aux_sym_repeat_stmt_token1, 350), (aux_sym_raise_stmt_token1, 352),
     (aux_sym_try_stmt_token1, 354), (aux_sym_try_stmt_token2, 356),
     (aux_sym_catch_clause_token1, 356), (aux_sym_finally_clause_token1, 356), (sym_ld_rung, 358),
     (sym_fbd_network, 360), (sym_c_style_comment, 3), (sym_pascal_style_comment, 3),
     (sym_pragma, 3)]"

lemma ts_parse_row_742_scan: "row_scan tokens_63_2 0 ts_parse_row_742 = Some (Suc (Suc (Suc (Suc 0))))"
  unfolding ts_parse_row_742_def by simp

text \<open>Lines 139168 to 139280.\<close>

definition ts_parse_row_743 :: parse_row where
  "ts_parse_row_743 =
    [(sym_ERR_assign_func_call, 7530), (sym_ERR_unexpected_this_in_path, 2372),
     (sym_ERR_unexpected_super_in_path, 2372), (sym_ERR_fb_variables_after_method, 1727),
     (sym_ERR_var_access_not_allowed, 3160), (sym_ERR_var_config_not_allowed, 3160),
     (sym_ERR_var_global_not_allowed, 3160), (sym_ERR_method_decl_in_body, 3150),
     (sym_extern_pragma, 7490), (sym_wasm_pragma, 3150), (sym_warn_pragma, 7490),
     (sym_allow_pragma, 3140), (sym_test_pragma, 7490), (sym_once_pragma, 7490),
     (sym_must_call_pragma, 7490), (sym_export_pragma, 7490), (sym_pou_pragma, 7194),
     (sym_direct_variable, 7675), (sym_deref_expression, 2373), (sym_variable, 7599),
     (sym_var_access, 2373), (sym_in_out_decls, 3160), (sym_var_decls, 3160),
     (sym_retain_var_decls, 3160), (sym_temp_var_decls, 3160), (sym_external_var_decls, 3160),
     (sym_global_var_decls, 2947), (sym_loc_partly_var_decl, 3160), (sym__fb_variables, 2343),
     (sym_fb_input_decls, 3160), (sym_fb_output_decls, 3160), (sym_no_retain_var_decls, 3160),
     (sym_fb_body, 9328), (sym_method_decl, 2549), (sym_prog_access_decls, 3043), (sym_SFC, 7970),
     (sym_SFC_network, 7612), (sym_initial_step, 7439), (sym_config_init, 3047),
     (sym_variable_access, 7530), (sym_func_call, 2961), (sym_stmt_list, 7970), (sym__stmt, 2024),
     (sym_assign, 3150), (sym_if_stmt, 3150), (sym_case_stmt, 3150), (sym_for_stmt, 3150),
     (sym_while_stmt, 3150), (sym_repeat_stmt, 3150), (sym_raise_stmt, 3150), (sym_try_stmt, 3150),
     (sym_ERR_clause_outside_try, 3150), (sym_begin_path_expression, 2943), (sym_invocation, 2934),
     (sym_any_invocation, 2935), (sym_this_invocation, 2641), (sym_super_invocation, 2641),
     (sym_super_body_invocation, 2935), (sym_path_expression, 2627), (sym_field_expression, 2373),
     (sym_index_expression, 2373), (sym_ladder_diagram, 7970), (sym_fb_diagram, 7970),
     (aux_sym_ERR_fb_variables_after_method_repeat1, 2343), (aux_sym_func_decl_repeat1, 7194),
     (aux_sym_fb_decl_repeat3, 2549), (aux_sym_SFC_repeat1, 7612),
     (aux_sym_stmt_list_repeat1, 2024), (aux_sym_ladder_diagram_repeat1, 8009),
     (aux_sym_fb_diagram_repeat1, 8013), (sym_identifier, 298),
     (aux_sym_ERR_unexpected_this_in_path_token1, 304),
     (aux_sym_ERR_unexpected_super_in_path_token1, 306), (sym_line_comment, 3),
     (anon_sym_LBRACE, 308), (aux_sym_test_pragma_token1, 9), (aux_sym_once_pragma_token1, 11),
     (aux_sym_must_call_pragma_token1, 13), (aux_sym_export_pragma_token1, 15),
     (anon_sym_SEMI, 310), (anon_sym_PERCENT, 312), (aux_sym_input_decls_token1, 314),
     (aux_sym_output_decls_token1, 316), (aux_sym_in_out_decls_token1, 318),
     (aux_sym_var_decls_token1, 320), (aux_sym_temp_var_decls_token1, 322),
     (aux_sym_external_var_decls_token1, 324), (aux_sym_global_var_decls_token1, 326),
     (aux_sym_fb_decl_token4, 1816), (aux_sym_method_decl_token1, 330),
     (aux_sym_prog_access_decls_token1, 332), (aux_sym_initial_step_token1, 334),
     (aux_sym_config_init_token1, 336), (aux_sym__stmt_token1, 340), (aux_sym__stmt_token2, 340),
     (aux_sym__stmt_token3, 340), (aux_sym_if_stmt_token1, 342), (aux_sym_case_stmt_token1, 344),
     (aux_sym_for_stmt_token1, 346), (aux_sym_while_stmt_token1, 348),
     (aux_sym_repeat_stmt_token1, 350), (aux_sym_raise_stmt_token1, 352),
     (aux_sym_try_stmt_token1, 354), (aux_sym_try_stmt_token2, 356),
     (aux_sym_catch_clause_token1, 356), (aux_sym_finally_clause_token1, 356), (sym_ld_rung, 358),
     (sym_fbd_network, 360), (sym_c_style_comment, 3), (sym_pascal_style_comment, 3),
     (sym_pragma, 3)]"

lemma ts_parse_row_743_scan: "row_scan tokens_63_2 0 ts_parse_row_743 = Some (Suc (Suc (Suc (Suc 0))))"
  unfolding ts_parse_row_743_def by simp

text \<open>Lines 139281 to 139393.\<close>

definition ts_parse_row_744 :: parse_row where
  "ts_parse_row_744 =
    [(sym_ERR_assign_func_call, 7530), (sym_ERR_unexpected_this_in_path, 2372),
     (sym_ERR_unexpected_super_in_path, 2372), (sym_ERR_fb_variables_after_method, 1728),
     (sym_ERR_var_access_not_allowed, 3160), (sym_ERR_var_config_not_allowed, 3160),
     (sym_ERR_var_global_not_allowed, 3160), (sym_ERR_method_decl_in_body, 3150),
     (sym_extern_pragma, 7490), (sym_wasm_pragma, 3150), (sym_warn_pragma, 7490),
     (sym_allow_pragma, 3140), (sym_test_pragma, 7490), (sym_once_pragma, 7490),
     (sym_must_call_pragma, 7490), (sym_export_pragma, 7490), (sym_pou_pragma, 7194),
     (sym_direct_variable, 7675), (sym_deref_expression, 2373), (sym_variable, 7599),
     (sym_var_access, 2373), (sym_in_out_decls, 3160), (sym_var_decls, 3160),
     (sym_retain_var_decls, 3160), (sym_temp_var_decls, 3160), (sym_external_var_decls, 3160),
     (sym_global_var_decls, 2947), (sym_loc_partly_var_decl, 3160), (sym__fb_variables, 2343),
     (sym_fb_input_decls, 3160), (sym_fb_output_decls, 3160), (sym_no_retain_var_decls, 3160),
     (sym_fb_body, 9411), (sym_method_decl, 2549), (sym_prog_access_decls, 3043), (sym_SFC, 7970),
     (sym_SFC_network, 7612), (sym_initial_step, 7439), (sym_config_init, 3047),
     (sym_variable_access, 7530), (sym_func_call, 2961), (sym_stmt_list, 7970), (sym__stmt, 2024),
     (sym_assign, 3150), (sym_if_stmt, 3150), (sym_case_stmt, 3150), (sym_for_stmt, 3150),
     (sym_while_stmt, 3150), (sym_repeat_stmt, 3150), (sym_raise_stmt, 3150), (sym_try_stmt, 3150),
     (sym_ERR_clause_outside_try, 3150), (sym_begin_path_expression, 2943), (sym_invocation, 2934),
     (sym_any_invocation, 2935), (sym_this_invocation, 2641), (sym_super_invocation, 2641),
     (sym_super_body_invocation, 2935), (sym_path_expression, 2627), (sym_field_expression, 2373),
     (sym_index_expression, 2373), (sym_ladder_diagram, 7970), (sym_fb_diagram, 7970),
     (aux_sym_ERR_fb_variables_after_method_repeat1, 2343), (aux_sym_func_decl_repeat1, 7194),
     (aux_sym_fb_decl_repeat3, 2549), (aux_sym_SFC_repeat1, 7612),
     (aux_sym_stmt_list_repeat1, 2024), (aux_sym_ladder_diagram_repeat1, 8009),
     (aux_sym_fb_diagram_repeat1, 8013), (sym_identifier, 298),
     (aux_sym_ERR_unexpected_this_in_path_token1, 304),
     (aux_sym_ERR_unexpected_super_in_path_token1, 306), (sym_line_comment, 3),
     (anon_sym_LBRACE, 308), (aux_sym_test_pragma_token1, 9), (aux_sym_once_pragma_token1, 11),
     (aux_sym_must_call_pragma_token1, 13), (aux_sym_export_pragma_token1, 15),
     (anon_sym_SEMI, 310), (anon_sym_PERCENT, 312), (aux_sym_input_decls_token1, 314),
     (aux_sym_output_decls_token1, 316), (aux_sym_in_out_decls_token1, 318),
     (aux_sym_var_decls_token1, 320), (aux_sym_temp_var_decls_token1, 322),
     (aux_sym_external_var_decls_token1, 324), (aux_sym_global_var_decls_token1, 326),
     (aux_sym_fb_decl_token4, 1818), (aux_sym_method_decl_token1, 330),
     (aux_sym_prog_access_decls_token1, 332), (aux_sym_initial_step_token1, 334),
     (aux_sym_config_init_token1, 336), (aux_sym__stmt_token1, 340), (aux_sym__stmt_token2, 340),
     (aux_sym__stmt_token3, 340), (aux_sym_if_stmt_token1, 342), (aux_sym_case_stmt_token1, 344),
     (aux_sym_for_stmt_token1, 346), (aux_sym_while_stmt_token1, 348),
     (aux_sym_repeat_stmt_token1, 350), (aux_sym_raise_stmt_token1, 352),
     (aux_sym_try_stmt_token1, 354), (aux_sym_try_stmt_token2, 356),
     (aux_sym_catch_clause_token1, 356), (aux_sym_finally_clause_token1, 356), (sym_ld_rung, 358),
     (sym_fbd_network, 360), (sym_c_style_comment, 3), (sym_pascal_style_comment, 3),
     (sym_pragma, 3)]"

lemma ts_parse_row_744_scan: "row_scan tokens_63_2 0 ts_parse_row_744 = Some (Suc (Suc (Suc (Suc 0))))"
  unfolding ts_parse_row_744_def by simp

text \<open>Lines 139394 to 139506.\<close>

definition ts_parse_row_745 :: parse_row where
  "ts_parse_row_745 =
    [(sym_ERR_assign_func_call, 7530), (sym_ERR_unexpected_this_in_path, 2372),
     (sym_ERR_unexpected_super_in_path, 2372), (sym_ERR_fb_variables_after_method, 1729),
     (sym_ERR_var_access_not_allowed, 3160), (sym_ERR_var_config_not_allowed, 3160),
     (sym_ERR_var_global_not_allowed, 3160), (sym_ERR_method_decl_in_body, 3150),
     (sym_extern_pragma, 7490), (sym_wasm_pragma, 3150), (sym_warn_pragma, 7490),
     (sym_allow_pragma, 3140), (sym_test_pragma, 7490), (sym_once_pragma, 7490),
     (sym_must_call_pragma, 7490), (sym_export_pragma, 7490), (sym_pou_pragma, 7194),
     (sym_direct_variable, 7675), (sym_deref_expression, 2373), (sym_variable, 7599),
     (sym_var_access, 2373), (sym_in_out_decls, 3160), (sym_var_decls, 3160),
     (sym_retain_var_decls, 3160), (sym_temp_var_decls, 3160), (sym_external_var_decls, 3160),
     (sym_global_var_decls, 2947), (sym_loc_partly_var_decl, 3160), (sym__fb_variables, 2343),
     (sym_fb_input_decls, 3160), (sym_fb_output_decls, 3160), (sym_no_retain_var_decls, 3160),
     (sym_fb_body, 9436), (sym_method_decl, 2549), (sym_prog_access_decls, 3043), (sym_SFC, 7970),
     (sym_SFC_network, 7612), (sym_initial_step, 7439), (sym_config_init, 3047),
     (sym_variable_access, 7530), (sym_func_call, 2961), (sym_stmt_list, 7970), (sym__stmt, 2024),
     (sym_assign, 3150), (sym_if_stmt, 3150), (sym_case_stmt, 3150), (sym_for_stmt, 3150),
     (sym_while_stmt, 3150), (sym_repeat_stmt, 3150), (sym_raise_stmt, 3150), (sym_try_stmt, 3150),
     (sym_ERR_clause_outside_try, 3150), (sym_begin_path_expression, 2943), (sym_invocation, 2934),
     (sym_any_invocation, 2935), (sym_this_invocation, 2641), (sym_super_invocation, 2641),
     (sym_super_body_invocation, 2935), (sym_path_expression, 2627), (sym_field_expression, 2373),
     (sym_index_expression, 2373), (sym_ladder_diagram, 7970), (sym_fb_diagram, 7970),
     (aux_sym_ERR_fb_variables_after_method_repeat1, 2343), (aux_sym_func_decl_repeat1, 7194),
     (aux_sym_fb_decl_repeat3, 2549), (aux_sym_SFC_repeat1, 7612),
     (aux_sym_stmt_list_repeat1, 2024), (aux_sym_ladder_diagram_repeat1, 8009),
     (aux_sym_fb_diagram_repeat1, 8013), (sym_identifier, 298),
     (aux_sym_ERR_unexpected_this_in_path_token1, 304),
     (aux_sym_ERR_unexpected_super_in_path_token1, 306), (sym_line_comment, 3),
     (anon_sym_LBRACE, 308), (aux_sym_test_pragma_token1, 9), (aux_sym_once_pragma_token1, 11),
     (aux_sym_must_call_pragma_token1, 13), (aux_sym_export_pragma_token1, 15),
     (anon_sym_SEMI, 310), (anon_sym_PERCENT, 312), (aux_sym_input_decls_token1, 314),
     (aux_sym_output_decls_token1, 316), (aux_sym_in_out_decls_token1, 318),
     (aux_sym_var_decls_token1, 320), (aux_sym_temp_var_decls_token1, 322),
     (aux_sym_external_var_decls_token1, 324), (aux_sym_global_var_decls_token1, 326),
     (aux_sym_fb_decl_token4, 1820), (aux_sym_method_decl_token1, 330),
     (aux_sym_prog_access_decls_token1, 332), (aux_sym_initial_step_token1, 334),
     (aux_sym_config_init_token1, 336), (aux_sym__stmt_token1, 340), (aux_sym__stmt_token2, 340),
     (aux_sym__stmt_token3, 340), (aux_sym_if_stmt_token1, 342), (aux_sym_case_stmt_token1, 344),
     (aux_sym_for_stmt_token1, 346), (aux_sym_while_stmt_token1, 348),
     (aux_sym_repeat_stmt_token1, 350), (aux_sym_raise_stmt_token1, 352),
     (aux_sym_try_stmt_token1, 354), (aux_sym_try_stmt_token2, 356),
     (aux_sym_catch_clause_token1, 356), (aux_sym_finally_clause_token1, 356), (sym_ld_rung, 358),
     (sym_fbd_network, 360), (sym_c_style_comment, 3), (sym_pascal_style_comment, 3),
     (sym_pragma, 3)]"

lemma ts_parse_row_745_scan: "row_scan tokens_63_2 0 ts_parse_row_745 = Some (Suc (Suc (Suc (Suc 0))))"
  unfolding ts_parse_row_745_def by simp

text \<open>Lines 139507 to 139619.\<close>

definition ts_parse_row_746 :: parse_row where
  "ts_parse_row_746 =
    [(sym_ERR_assign_func_call, 7530), (sym_ERR_unexpected_this_in_path, 2372),
     (sym_ERR_unexpected_super_in_path, 2372), (sym_ERR_fb_variables_after_method, 1730),
     (sym_ERR_var_access_not_allowed, 3160), (sym_ERR_var_config_not_allowed, 3160),
     (sym_ERR_var_global_not_allowed, 3160), (sym_ERR_method_decl_in_body, 3150),
     (sym_extern_pragma, 7490), (sym_wasm_pragma, 3150), (sym_warn_pragma, 7490),
     (sym_allow_pragma, 3140), (sym_test_pragma, 7490), (sym_once_pragma, 7490),
     (sym_must_call_pragma, 7490), (sym_export_pragma, 7490), (sym_pou_pragma, 7194),
     (sym_direct_variable, 7675), (sym_deref_expression, 2373), (sym_variable, 7599),
     (sym_var_access, 2373), (sym_in_out_decls, 3160), (sym_var_decls, 3160),
     (sym_retain_var_decls, 3160), (sym_temp_var_decls, 3160), (sym_external_var_decls, 3160),
     (sym_global_var_decls, 2947), (sym_loc_partly_var_decl, 3160), (sym__fb_variables, 2347),
     (sym_fb_input_decls, 3160), (sym_fb_output_decls, 3160), (sym_no_retain_var_decls, 3160),
     (sym_fb_body, 9459), (sym_method_decl, 810), (sym_prog_access_decls, 3043), (sym_SFC, 7970),
     (sym_SFC_network, 7612), (sym_initial_step, 7439), (sym_config_init, 3047),
     (sym_variable_access, 7530), (sym_func_call, 2961), (sym_stmt_list, 7970), (sym__stmt, 2024),
     (sym_assign, 3150), (sym_if_stmt, 3150), (sym_case_stmt, 3150), (sym_for_stmt, 3150),
     (sym_while_stmt, 3150), (sym_repeat_stmt, 3150), (sym_raise_stmt, 3150), (sym_try_stmt, 3150),
     (sym_ERR_clause_outside_try, 3150), (sym_begin_path_expression, 2943), (sym_invocation, 2934),
     (sym_any_invocation, 2935), (sym_this_invocation, 2641), (sym_super_invocation, 2641),
     (sym_super_body_invocation, 2935), (sym_path_expression, 2627), (sym_field_expression, 2373),
     (sym_index_expression, 2373), (sym_ladder_diagram, 7970), (sym_fb_diagram, 7970),
     (aux_sym_ERR_fb_variables_after_method_repeat1, 2347), (aux_sym_func_decl_repeat1, 7194),
     (aux_sym_fb_decl_repeat3, 810), (aux_sym_SFC_repeat1, 7612), (aux_sym_stmt_list_repeat1, 2024),
     (aux_sym_ladder_diagram_repeat1, 8009), (aux_sym_fb_diagram_repeat1, 8013),
     (sym_identifier, 298), (aux_sym_ERR_unexpected_this_in_path_token1, 304),
     (aux_sym_ERR_unexpected_super_in_path_token1, 306), (sym_line_comment, 3),
     (anon_sym_LBRACE, 308), (aux_sym_test_pragma_token1, 9), (aux_sym_once_pragma_token1, 11),
     (aux_sym_must_call_pragma_token1, 13), (aux_sym_export_pragma_token1, 15),
     (anon_sym_SEMI, 310), (anon_sym_PERCENT, 312), (aux_sym_input_decls_token1, 314),
     (aux_sym_output_decls_token1, 316), (aux_sym_in_out_decls_token1, 318),
     (aux_sym_var_decls_token1, 320), (aux_sym_temp_var_decls_token1, 322),
     (aux_sym_external_var_decls_token1, 324), (aux_sym_global_var_decls_token1, 326),
     (aux_sym_fb_decl_token4, 1822), (aux_sym_method_decl_token1, 330),
     (aux_sym_prog_access_decls_token1, 332), (aux_sym_initial_step_token1, 334),
     (aux_sym_config_init_token1, 336), (aux_sym__stmt_token1, 340), (aux_sym__stmt_token2, 340),
     (aux_sym__stmt_token3, 340), (aux_sym_if_stmt_token1, 342), (aux_sym_case_stmt_token1, 344),
     (aux_sym_for_stmt_token1, 346), (aux_sym_while_stmt_token1, 348),
     (aux_sym_repeat_stmt_token1, 350), (aux_sym_raise_stmt_token1, 352),
     (aux_sym_try_stmt_token1, 354), (aux_sym_try_stmt_token2, 356),
     (aux_sym_catch_clause_token1, 356), (aux_sym_finally_clause_token1, 356), (sym_ld_rung, 358),
     (sym_fbd_network, 360), (sym_c_style_comment, 3), (sym_pascal_style_comment, 3),
     (sym_pragma, 3)]"

lemma ts_parse_row_746_scan: "row_scan tokens_63_2 0 ts_parse_row_746 = Some (Suc (Suc (Suc (Suc 0))))"
  unfolding ts_parse_row_746_def by simp

text \<open>Lines 139620 to 139732.\<close>

definition ts_parse_row_747 :: parse_row where
  "ts_parse_row_747 =
    [(sym_ERR_assign_func_call, 7530), (sym_ERR_unexpected_this_in_path, 2372),
     (sym_ERR_unexpected_super_in_path, 2372), (sym_ERR_fb_variables_after_method, 1731),
     (sym_ERR_var_access_not_allowed, 3160), (sym_ERR_var_config_not_allowed, 3160),
     (sym_ERR_var_global_not_allowed, 3160), (sym_ERR_method_decl_in_body, 3150),
     (sym_extern_pragma, 7490), (sym_wasm_pragma, 3150), (sym_warn_pragma, 7490),
     (sym_allow_pragma, 3140), (sym_test_pragma, 7490), (sym_once_pragma, 7490),
     (sym_must_call_pragma, 7490), (sym_export_pragma, 7490), (sym_pou_pragma, 7194),
     (sym_direct_variable, 7675), (sym_deref_expression, 2373), (sym_variable, 7599),
     (sym_var_access, 2373), (sym_in_out_decls, 3160), (sym_var_decls, 3160),
     (sym_retain_var_decls, 3160), (sym_temp_var_decls, 3160), (sym_external_var_decls, 3160),
     (sym_global_var_decls, 2947), (sym_loc_partly_var_decl, 3160), (sym__fb_variables, 2343),
     (sym_fb_input_decls, 3160), (sym_fb_output_decls, 3160), (sym_no_retain_var_decls, 3160),
     (sym_fb_body, 9471), (sym_method_decl, 2549), (sym_prog_access_decls, 3043), (sym_SFC, 7970),
     (sym_SFC_network, 7612), (sym_initial_step, 7439), (sym_config_init, 3047),
     (sym_variable_access, 7530), (sym_func_call, 2961), (sym_stmt_list, 7970), (sym__stmt, 2024),
     (sym_assign, 3150), (sym_if_stmt, 3150), (sym_case_stmt, 3150), (sym_for_stmt, 3150),
     (sym_while_stmt, 3150), (sym_repeat_stmt, 3150), (sym_raise_stmt, 3150), (sym_try_stmt, 3150),
     (sym_ERR_clause_outside_try, 3150), (sym_begin_path_expression, 2943), (sym_invocation, 2934),
     (sym_any_invocation, 2935), (sym_this_invocation, 2641), (sym_super_invocation, 2641),
     (sym_super_body_invocation, 2935), (sym_path_expression, 2627), (sym_field_expression, 2373),
     (sym_index_expression, 2373), (sym_ladder_diagram, 7970), (sym_fb_diagram, 7970),
     (aux_sym_ERR_fb_variables_after_method_repeat1, 2343), (aux_sym_func_decl_repeat1, 7194),
     (aux_sym_fb_decl_repeat3, 2549), (aux_sym_SFC_repeat1, 7612),
     (aux_sym_stmt_list_repeat1, 2024), (aux_sym_ladder_diagram_repeat1, 8009),
     (aux_sym_fb_diagram_repeat1, 8013), (sym_identifier, 298),
     (aux_sym_ERR_unexpected_this_in_path_token1, 304),
     (aux_sym_ERR_unexpected_super_in_path_token1, 306), (sym_line_comment, 3),
     (anon_sym_LBRACE, 308), (aux_sym_test_pragma_token1, 9), (aux_sym_once_pragma_token1, 11),
     (aux_sym_must_call_pragma_token1, 13), (aux_sym_export_pragma_token1, 15),
     (anon_sym_SEMI, 310), (anon_sym_PERCENT, 312), (aux_sym_input_decls_token1, 314),
     (aux_sym_output_decls_token1, 316), (aux_sym_in_out_decls_token1, 318),
     (aux_sym_var_decls_token1, 320), (aux_sym_temp_var_decls_token1, 322),
     (aux_sym_external_var_decls_token1, 324), (aux_sym_global_var_decls_token1, 326),
     (aux_sym_fb_decl_token4, 1824), (aux_sym_method_decl_token1, 330),
     (aux_sym_prog_access_decls_token1, 332), (aux_sym_initial_step_token1, 334),
     (aux_sym_config_init_token1, 336), (aux_sym__stmt_token1, 340), (aux_sym__stmt_token2, 340),
     (aux_sym__stmt_token3, 340), (aux_sym_if_stmt_token1, 342), (aux_sym_case_stmt_token1, 344),
     (aux_sym_for_stmt_token1, 346), (aux_sym_while_stmt_token1, 348),
     (aux_sym_repeat_stmt_token1, 350), (aux_sym_raise_stmt_token1, 352),
     (aux_sym_try_stmt_token1, 354), (aux_sym_try_stmt_token2, 356),
     (aux_sym_catch_clause_token1, 356), (aux_sym_finally_clause_token1, 356), (sym_ld_rung, 358),
     (sym_fbd_network, 360), (sym_c_style_comment, 3), (sym_pascal_style_comment, 3),
     (sym_pragma, 3)]"

lemma ts_parse_row_747_scan: "row_scan tokens_63_2 0 ts_parse_row_747 = Some (Suc (Suc (Suc (Suc 0))))"
  unfolding ts_parse_row_747_def by simp

text \<open>Lines 139733 to 139845.\<close>

definition ts_parse_row_748 :: parse_row where
  "ts_parse_row_748 =
    [(sym_ERR_assign_func_call, 7530), (sym_ERR_unexpected_this_in_path, 2372),
     (sym_ERR_unexpected_super_in_path, 2372), (sym_ERR_fb_variables_after_method, 1732),
     (sym_ERR_var_access_not_allowed, 3160), (sym_ERR_var_config_not_allowed, 3160),
     (sym_ERR_var_global_not_allowed, 3160), (sym_ERR_method_decl_in_body, 3150),
     (sym_extern_pragma, 7490), (sym_wasm_pragma, 3150), (sym_warn_pragma, 7490),
     (sym_allow_pragma, 3140), (sym_test_pragma, 7490), (sym_once_pragma, 7490),
     (sym_must_call_pragma, 7490), (sym_export_pragma, 7490), (sym_pou_pragma, 7194),
     (sym_direct_variable, 7675), (sym_deref_expression, 2373), (sym_variable, 7599),
     (sym_var_access, 2373), (sym_in_out_decls, 3160), (sym_var_decls, 3160),
     (sym_retain_var_decls, 3160), (sym_temp_var_decls, 3160), (sym_external_var_decls, 3160),
     (sym_global_var_decls, 2947), (sym_loc_partly_var_decl, 3160), (sym__fb_variables, 2343),
     (sym_fb_input_decls, 3160), (sym_fb_output_decls, 3160), (sym_no_retain_var_decls, 3160),
     (sym_fb_body, 9527), (sym_method_decl, 2549), (sym_prog_access_decls, 3043), (sym_SFC, 7970),
     (sym_SFC_network, 7612), (sym_initial_step, 7439), (sym_config_init, 3047),
     (sym_variable_access, 7530), (sym_func_call, 2961), (sym_stmt_list, 7970), (sym__stmt, 2024),
     (sym_assign, 3150), (sym_if_stmt, 3150), (sym_case_stmt, 3150), (sym_for_stmt, 3150),
     (sym_while_stmt, 3150), (sym_repeat_stmt, 3150), (sym_raise_stmt, 3150), (sym_try_stmt, 3150),
     (sym_ERR_clause_outside_try, 3150), (sym_begin_path_expression, 2943), (sym_invocation, 2934),
     (sym_any_invocation, 2935), (sym_this_invocation, 2641), (sym_super_invocation, 2641),
     (sym_super_body_invocation, 2935), (sym_path_expression, 2627), (sym_field_expression, 2373),
     (sym_index_expression, 2373), (sym_ladder_diagram, 7970), (sym_fb_diagram, 7970),
     (aux_sym_ERR_fb_variables_after_method_repeat1, 2343), (aux_sym_func_decl_repeat1, 7194),
     (aux_sym_fb_decl_repeat3, 2549), (aux_sym_SFC_repeat1, 7612),
     (aux_sym_stmt_list_repeat1, 2024), (aux_sym_ladder_diagram_repeat1, 8009),
     (aux_sym_fb_diagram_repeat1, 8013), (sym_identifier, 298),
     (aux_sym_ERR_unexpected_this_in_path_token1, 304),
     (aux_sym_ERR_unexpected_super_in_path_token1, 306), (sym_line_comment, 3),
     (anon_sym_LBRACE, 308), (aux_sym_test_pragma_token1, 9), (aux_sym_once_pragma_token1, 11),
     (aux_sym_must_call_pragma_token1, 13), (aux_sym_export_pragma_token1, 15),
     (anon_sym_SEMI, 310), (anon_sym_PERCENT, 312), (aux_sym_input_decls_token1, 314),
     (aux_sym_output_decls_token1, 316), (aux_sym_in_out_decls_token1, 318),
     (aux_sym_var_decls_token1, 320), (aux_sym_temp_var_decls_token1, 322),
     (aux_sym_external_var_decls_token1, 324), (aux_sym_global_var_decls_token1, 326),
     (aux_sym_fb_decl_token4, 1826), (aux_sym_method_decl_token1, 330),
     (aux_sym_prog_access_decls_token1, 332), (aux_sym_initial_step_token1, 334),
     (aux_sym_config_init_token1, 336), (aux_sym__stmt_token1, 340), (aux_sym__stmt_token2, 340),
     (aux_sym__stmt_token3, 340), (aux_sym_if_stmt_token1, 342), (aux_sym_case_stmt_token1, 344),
     (aux_sym_for_stmt_token1, 346), (aux_sym_while_stmt_token1, 348),
     (aux_sym_repeat_stmt_token1, 350), (aux_sym_raise_stmt_token1, 352),
     (aux_sym_try_stmt_token1, 354), (aux_sym_try_stmt_token2, 356),
     (aux_sym_catch_clause_token1, 356), (aux_sym_finally_clause_token1, 356), (sym_ld_rung, 358),
     (sym_fbd_network, 360), (sym_c_style_comment, 3), (sym_pascal_style_comment, 3),
     (sym_pragma, 3)]"

lemma ts_parse_row_748_scan: "row_scan tokens_63_2 0 ts_parse_row_748 = Some (Suc (Suc (Suc (Suc 0))))"
  unfolding ts_parse_row_748_def by simp

text \<open>Lines 139846 to 139958.\<close>

definition ts_parse_row_749 :: parse_row where
  "ts_parse_row_749 =
    [(sym_ERR_assign_func_call, 7530), (sym_ERR_unexpected_this_in_path, 2372),
     (sym_ERR_unexpected_super_in_path, 2372), (sym_ERR_fb_variables_after_method, 1733),
     (sym_ERR_var_access_not_allowed, 3160), (sym_ERR_var_config_not_allowed, 3160),
     (sym_ERR_var_global_not_allowed, 3160), (sym_ERR_method_decl_in_body, 3150),
     (sym_extern_pragma, 7490), (sym_wasm_pragma, 3150), (sym_warn_pragma, 7490),
     (sym_allow_pragma, 3140), (sym_test_pragma, 7490), (sym_once_pragma, 7490),
     (sym_must_call_pragma, 7490), (sym_export_pragma, 7490), (sym_pou_pragma, 7194),
     (sym_direct_variable, 7675), (sym_deref_expression, 2373), (sym_variable, 7599),
     (sym_var_access, 2373), (sym_in_out_decls, 3160), (sym_var_decls, 3160),
     (sym_retain_var_decls, 3160), (sym_temp_var_decls, 3160), (sym_external_var_decls, 3160),
     (sym_global_var_decls, 2947), (sym_loc_partly_var_decl, 3160), (sym__fb_variables, 2347),
     (sym_fb_input_decls, 3160), (sym_fb_output_decls, 3160), (sym_no_retain_var_decls, 3160),
     (sym_fb_body, 9553), (sym_method_decl, 811), (sym_prog_access_decls, 3043), (sym_SFC, 7970),
     (sym_SFC_network, 7612), (sym_initial_step, 7439), (sym_config_init, 3047),
     (sym_variable_access, 7530), (sym_func_call, 2961), (sym_stmt_list, 7970), (sym__stmt, 2024),
     (sym_assign, 3150), (sym_if_stmt, 3150), (sym_case_stmt, 3150), (sym_for_stmt, 3150),
     (sym_while_stmt, 3150), (sym_repeat_stmt, 3150), (sym_raise_stmt, 3150), (sym_try_stmt, 3150),
     (sym_ERR_clause_outside_try, 3150), (sym_begin_path_expression, 2943), (sym_invocation, 2934),
     (sym_any_invocation, 2935), (sym_this_invocation, 2641), (sym_super_invocation, 2641),
     (sym_super_body_invocation, 2935), (sym_path_expression, 2627), (sym_field_expression, 2373),
     (sym_index_expression, 2373), (sym_ladder_diagram, 7970), (sym_fb_diagram, 7970),
     (aux_sym_ERR_fb_variables_after_method_repeat1, 2347), (aux_sym_func_decl_repeat1, 7194),
     (aux_sym_fb_decl_repeat3, 811), (aux_sym_SFC_repeat1, 7612), (aux_sym_stmt_list_repeat1, 2024),
     (aux_sym_ladder_diagram_repeat1, 8009), (aux_sym_fb_diagram_repeat1, 8013),
     (sym_identifier, 298), (aux_sym_ERR_unexpected_this_in_path_token1, 304),
     (aux_sym_ERR_unexpected_super_in_path_token1, 306), (sym_line_comment, 3),
     (anon_sym_LBRACE, 308), (aux_sym_test_pragma_token1, 9), (aux_sym_once_pragma_token1, 11),
     (aux_sym_must_call_pragma_token1, 13), (aux_sym_export_pragma_token1, 15),
     (anon_sym_SEMI, 310), (anon_sym_PERCENT, 312), (aux_sym_input_decls_token1, 314),
     (aux_sym_output_decls_token1, 316), (aux_sym_in_out_decls_token1, 318),
     (aux_sym_var_decls_token1, 320), (aux_sym_temp_var_decls_token1, 322),
     (aux_sym_external_var_decls_token1, 324), (aux_sym_global_var_decls_token1, 326),
     (aux_sym_fb_decl_token4, 1828), (aux_sym_method_decl_token1, 330),
     (aux_sym_prog_access_decls_token1, 332), (aux_sym_initial_step_token1, 334),
     (aux_sym_config_init_token1, 336), (aux_sym__stmt_token1, 340), (aux_sym__stmt_token2, 340),
     (aux_sym__stmt_token3, 340), (aux_sym_if_stmt_token1, 342), (aux_sym_case_stmt_token1, 344),
     (aux_sym_for_stmt_token1, 346), (aux_sym_while_stmt_token1, 348),
     (aux_sym_repeat_stmt_token1, 350), (aux_sym_raise_stmt_token1, 352),
     (aux_sym_try_stmt_token1, 354), (aux_sym_try_stmt_token2, 356),
     (aux_sym_catch_clause_token1, 356), (aux_sym_finally_clause_token1, 356), (sym_ld_rung, 358),
     (sym_fbd_network, 360), (sym_c_style_comment, 3), (sym_pascal_style_comment, 3),
     (sym_pragma, 3)]"

lemma ts_parse_row_749_scan: "row_scan tokens_63_2 0 ts_parse_row_749 = Some (Suc (Suc (Suc (Suc 0))))"
  unfolding ts_parse_row_749_def by simp

definition parse_rows_5 :: "parse_row list" where
  "parse_rows_5 =
    [ts_parse_row_600, ts_parse_row_601, ts_parse_row_602, ts_parse_row_603, ts_parse_row_604,
     ts_parse_row_605, ts_parse_row_606, ts_parse_row_607, ts_parse_row_608, ts_parse_row_609,
     ts_parse_row_610, ts_parse_row_611, ts_parse_row_612, ts_parse_row_613, ts_parse_row_614,
     ts_parse_row_615, ts_parse_row_616, ts_parse_row_617, ts_parse_row_618, ts_parse_row_619,
     ts_parse_row_620, ts_parse_row_621, ts_parse_row_622, ts_parse_row_623, ts_parse_row_624,
     ts_parse_row_625, ts_parse_row_626, ts_parse_row_627, ts_parse_row_628, ts_parse_row_629,
     ts_parse_row_630, ts_parse_row_631, ts_parse_row_632, ts_parse_row_633, ts_parse_row_634,
     ts_parse_row_635, ts_parse_row_636, ts_parse_row_637, ts_parse_row_638, ts_parse_row_639,
     ts_parse_row_640, ts_parse_row_641, ts_parse_row_642, ts_parse_row_643, ts_parse_row_644,
     ts_parse_row_645, ts_parse_row_646, ts_parse_row_647, ts_parse_row_648, ts_parse_row_649,
     ts_parse_row_650, ts_parse_row_651, ts_parse_row_652, ts_parse_row_653, ts_parse_row_654,
     ts_parse_row_655, ts_parse_row_656, ts_parse_row_657, ts_parse_row_658, ts_parse_row_659,
     ts_parse_row_660, ts_parse_row_661, ts_parse_row_662, ts_parse_row_663, ts_parse_row_664,
     ts_parse_row_665, ts_parse_row_666, ts_parse_row_667, ts_parse_row_668, ts_parse_row_669,
     ts_parse_row_670, ts_parse_row_671, ts_parse_row_672, ts_parse_row_673, ts_parse_row_674,
     ts_parse_row_675, ts_parse_row_676, ts_parse_row_677, ts_parse_row_678, ts_parse_row_679,
     ts_parse_row_680, ts_parse_row_681, ts_parse_row_682, ts_parse_row_683, ts_parse_row_684,
     ts_parse_row_685, ts_parse_row_686, ts_parse_row_687, ts_parse_row_688, ts_parse_row_689,
     ts_parse_row_690, ts_parse_row_691, ts_parse_row_692, ts_parse_row_693, ts_parse_row_694,
     ts_parse_row_695, ts_parse_row_696, ts_parse_row_697, ts_parse_row_698, ts_parse_row_699,
     ts_parse_row_700, ts_parse_row_701, ts_parse_row_702, ts_parse_row_703, ts_parse_row_704,
     ts_parse_row_705, ts_parse_row_706, ts_parse_row_707, ts_parse_row_708, ts_parse_row_709,
     ts_parse_row_710, ts_parse_row_711, ts_parse_row_712, ts_parse_row_713, ts_parse_row_714,
     ts_parse_row_715, ts_parse_row_716, ts_parse_row_717, ts_parse_row_718, ts_parse_row_719,
     ts_parse_row_720, ts_parse_row_721, ts_parse_row_722, ts_parse_row_723, ts_parse_row_724,
     ts_parse_row_725, ts_parse_row_726, ts_parse_row_727, ts_parse_row_728, ts_parse_row_729,
     ts_parse_row_730, ts_parse_row_731, ts_parse_row_732, ts_parse_row_733, ts_parse_row_734,
     ts_parse_row_735, ts_parse_row_736, ts_parse_row_737, ts_parse_row_738, ts_parse_row_739,
     ts_parse_row_740, ts_parse_row_741, ts_parse_row_742, ts_parse_row_743, ts_parse_row_744,
     ts_parse_row_745, ts_parse_row_746, ts_parse_row_747, ts_parse_row_748, ts_parse_row_749]"

lemmas parse_rows_5_scan =
  ts_parse_row_600_scan ts_parse_row_601_scan ts_parse_row_602_scan ts_parse_row_603_scan
  ts_parse_row_604_scan ts_parse_row_605_scan ts_parse_row_606_scan ts_parse_row_607_scan
  ts_parse_row_608_scan ts_parse_row_609_scan ts_parse_row_610_scan ts_parse_row_611_scan
  ts_parse_row_612_scan ts_parse_row_613_scan ts_parse_row_614_scan ts_parse_row_615_scan
  ts_parse_row_616_scan ts_parse_row_617_scan ts_parse_row_618_scan ts_parse_row_619_scan
  ts_parse_row_620_scan ts_parse_row_621_scan ts_parse_row_622_scan ts_parse_row_623_scan
  ts_parse_row_624_scan ts_parse_row_625_scan ts_parse_row_626_scan ts_parse_row_627_scan
  ts_parse_row_628_scan ts_parse_row_629_scan ts_parse_row_630_scan ts_parse_row_631_scan
  ts_parse_row_632_scan ts_parse_row_633_scan ts_parse_row_634_scan ts_parse_row_635_scan
  ts_parse_row_636_scan ts_parse_row_637_scan ts_parse_row_638_scan ts_parse_row_639_scan
  ts_parse_row_640_scan ts_parse_row_641_scan ts_parse_row_642_scan ts_parse_row_643_scan
  ts_parse_row_644_scan ts_parse_row_645_scan ts_parse_row_646_scan ts_parse_row_647_scan
  ts_parse_row_648_scan ts_parse_row_649_scan ts_parse_row_650_scan ts_parse_row_651_scan
  ts_parse_row_652_scan ts_parse_row_653_scan ts_parse_row_654_scan ts_parse_row_655_scan
  ts_parse_row_656_scan ts_parse_row_657_scan ts_parse_row_658_scan ts_parse_row_659_scan
  ts_parse_row_660_scan ts_parse_row_661_scan ts_parse_row_662_scan ts_parse_row_663_scan
  ts_parse_row_664_scan ts_parse_row_665_scan ts_parse_row_666_scan ts_parse_row_667_scan
  ts_parse_row_668_scan ts_parse_row_669_scan ts_parse_row_670_scan ts_parse_row_671_scan
  ts_parse_row_672_scan ts_parse_row_673_scan ts_parse_row_674_scan ts_parse_row_675_scan
  ts_parse_row_676_scan ts_parse_row_677_scan ts_parse_row_678_scan ts_parse_row_679_scan
  ts_parse_row_680_scan ts_parse_row_681_scan ts_parse_row_682_scan ts_parse_row_683_scan
  ts_parse_row_684_scan ts_parse_row_685_scan ts_parse_row_686_scan ts_parse_row_687_scan
  ts_parse_row_688_scan ts_parse_row_689_scan ts_parse_row_690_scan ts_parse_row_691_scan
  ts_parse_row_692_scan ts_parse_row_693_scan ts_parse_row_694_scan ts_parse_row_695_scan
  ts_parse_row_696_scan ts_parse_row_697_scan ts_parse_row_698_scan ts_parse_row_699_scan
  ts_parse_row_700_scan ts_parse_row_701_scan ts_parse_row_702_scan ts_parse_row_703_scan
  ts_parse_row_704_scan ts_parse_row_705_scan ts_parse_row_706_scan ts_parse_row_707_scan
  ts_parse_row_708_scan ts_parse_row_709_scan ts_parse_row_710_scan ts_parse_row_711_scan
  ts_parse_row_712_scan ts_parse_row_713_scan ts_parse_row_714_scan ts_parse_row_715_scan
  ts_parse_row_716_scan ts_parse_row_717_scan ts_parse_row_718_scan ts_parse_row_719_scan
  ts_parse_row_720_scan ts_parse_row_721_scan ts_parse_row_722_scan ts_parse_row_723_scan
  ts_parse_row_724_scan ts_parse_row_725_scan ts_parse_row_726_scan ts_parse_row_727_scan
  ts_parse_row_728_scan ts_parse_row_729_scan ts_parse_row_730_scan ts_parse_row_731_scan
  ts_parse_row_732_scan ts_parse_row_733_scan ts_parse_row_734_scan ts_parse_row_735_scan
  ts_parse_row_736_scan ts_parse_row_737_scan ts_parse_row_738_scan ts_parse_row_739_scan
  ts_parse_row_740_scan ts_parse_row_741_scan ts_parse_row_742_scan ts_parse_row_743_scan
  ts_parse_row_744_scan ts_parse_row_745_scan ts_parse_row_746_scan ts_parse_row_747_scan
  ts_parse_row_748_scan ts_parse_row_749_scan

end
