(* ===== verification/Parse_Table_6.thy ===== *)
theory Parse_Table_6
  imports Parse_Cells
begin

text \<open>
  The rows 750 to 899 of \<open>ts_parse_table\<close> in \<open>src/crates/tree-sitter/src/parser.c\<close>, and the check of each
  against the tokens of its mode.
\<close>

text \<open>Lines 139959 to 140071.\<close>

definition ts_parse_row_750 :: parse_row where
  "ts_parse_row_750 =
    [(sym_ERR_assign_func_call, 7530), (sym_ERR_unexpected_this_in_path, 2372),
     (sym_ERR_unexpected_super_in_path, 2372), (sym_ERR_fb_variables_after_method, 1735),
     (sym_ERR_var_access_not_allowed, 3160), (sym_ERR_var_config_not_allowed, 3160),
     (sym_ERR_var_global_not_allowed, 3160), (sym_ERR_method_decl_in_body, 3150),
     (sym_extern_pragma, 7490), (sym_wasm_pragma, 3150), (sym_warn_pragma, 7490),
     (sym_allow_pragma, 3140), (sym_test_pragma, 7490), (sym_once_pragma, 7490),
     (sym_must_call_pragma, 7490), (sym_export_pragma, 7490), (sym_pou_pragma, 7194),
     (sym_direct_variable, 7675), (sym_deref_expression, 2373), (sym_variable, 7599),
     (sym_var_access, 2373), (sym_in_out_decls, 3160), (sym_var_decls, 3160),
     (sym_retain_var_decls, 3160), (sym_temp_var_decls, 3160), (sym_external_var_decls, 3160),
     (sym_global_var_decls, 2947), (sym_loc_partly_var_decl, 3160), (sym__fb_variables, 2343),
     (sym_fb_input_decls, 3160), (sym_fb_output_decls, 3160), (sym_no_retain_var_decls, 3160),
     (sym_fb_body, 9575), (sym_method_decl, 2549), (sym_prog_access_decls, 3043), (sym_SFC, 7970),
     (sym_SFC_network, 7612), (sym_initial_step, 7439), (sym_config_init, 3047),
     (sym_variable_access, 7530), (sym_func_call, 2961), (sym_stmt_list, 7970), (sym__stmt, 2024),
     (sym_assign, 3150), (sym_if_stmt, 3150), (sym_case_stmt, 3150), (sym_for_stmt, 3150),
     (sym_while_stmt, 3150), (sym_repeat_stmt, 3150), (sym_raise_stmt, 3150), (sym_try_stmt, 3150),
     (sym_ERR_clause_outside_try, 3150), (sym_begin_path_expression, 2943), (sym_invocation, 2934),
     (sym_any_invocation, 2935), (sym_this_invocation, 2641), (sym_super_invocation, 2641),
     (sym_super_body_invocation, 2935), (sym_path_expression, 2627), (sym_field_expression, 2373),
     (sym_index_expression, 2373), (sym_ladder_diagram, 7970), (sym_fb_diagram, 7970),
     (aux_sym_ERR_fb_variables_after_method_repeat1, 2343), (aux_sym_func_decl_repeat1, 7194),
     (aux_sym_fb_decl_repeat3, 2549), (aux_sym_SFC_repeat1, 7612),
     (aux_sym_stmt_list_repeat1, 2024), (aux_sym_ladder_diagram_repeat1, 8009),
     (aux_sym_fb_diagram_repeat1, 8013), (sym_identifier, 298),
     (aux_sym_ERR_unexpected_this_in_path_token1, 304),
     (aux_sym_ERR_unexpected_super_in_path_token1, 306), (sym_line_comment, 3),
     (anon_sym_LBRACE, 308), (aux_sym_test_pragma_token1, 9), (aux_sym_once_pragma_token1, 11),
     (aux_sym_must_call_pragma_token1, 13), (aux_sym_export_pragma_token1, 15),
     (anon_sym_SEMI, 310), (anon_sym_PERCENT, 312), (aux_sym_input_decls_token1, 314),
     (aux_sym_output_decls_token1, 316), (aux_sym_in_out_decls_token1, 318),
     (aux_sym_var_decls_token1, 320), (aux_sym_temp_var_decls_token1, 322),
     (aux_sym_external_var_decls_token1, 324), (aux_sym_global_var_decls_token1, 326),
     (aux_sym_fb_decl_token4, 1830), (aux_sym_method_decl_token1, 330),
     (aux_sym_prog_access_decls_token1, 332), (aux_sym_initial_step_token1, 334),
     (aux_sym_config_init_token1, 336), (aux_sym__stmt_token1, 340), (aux_sym__stmt_token2, 340),
     (aux_sym__stmt_token3, 340), (aux_sym_if_stmt_token1, 342), (aux_sym_case_stmt_token1, 344),
     (aux_sym_for_stmt_token1, 346), (aux_sym_while_stmt_token1, 348),
     (aux_sym_repeat_stmt_token1, 350), (aux_sym_raise_stmt_token1, 352),
     (aux_sym_try_stmt_token1, 354), (aux_sym_try_stmt_token2, 356),
     (aux_sym_catch_clause_token1, 356), (aux_sym_finally_clause_token1, 356), (sym_ld_rung, 358),
     (sym_fbd_network, 360), (sym_c_style_comment, 3), (sym_pascal_style_comment, 3),
     (sym_pragma, 3)]"

lemma ts_parse_row_750_scan: "row_scan tokens_63_2 0 ts_parse_row_750 = Some (Suc (Suc (Suc (Suc 0))))"
  unfolding ts_parse_row_750_def by simp

text \<open>Lines 140072 to 140184.\<close>

definition ts_parse_row_751 :: parse_row where
  "ts_parse_row_751 =
    [(sym_ERR_assign_func_call, 7530), (sym_ERR_unexpected_this_in_path, 2372),
     (sym_ERR_unexpected_super_in_path, 2372), (sym_ERR_fb_variables_after_method, 1736),
     (sym_ERR_var_access_not_allowed, 3160), (sym_ERR_var_config_not_allowed, 3160),
     (sym_ERR_var_global_not_allowed, 3160), (sym_ERR_method_decl_in_body, 3150),
     (sym_extern_pragma, 7490), (sym_wasm_pragma, 3150), (sym_warn_pragma, 7490),
     (sym_allow_pragma, 3140), (sym_test_pragma, 7490), (sym_once_pragma, 7490),
     (sym_must_call_pragma, 7490), (sym_export_pragma, 7490), (sym_pou_pragma, 7194),
     (sym_direct_variable, 7675), (sym_deref_expression, 2373), (sym_variable, 7599),
     (sym_var_access, 2373), (sym_in_out_decls, 3160), (sym_var_decls, 3160),
     (sym_retain_var_decls, 3160), (sym_temp_var_decls, 3160), (sym_external_var_decls, 3160),
     (sym_global_var_decls, 2947), (sym_loc_partly_var_decl, 3160), (sym__fb_variables, 2347),
     (sym_fb_input_decls, 3160), (sym_fb_output_decls, 3160), (sym_no_retain_var_decls, 3160),
     (sym_fb_body, 9599), (sym_method_decl, 812), (sym_prog_access_decls, 3043), (sym_SFC, 7970),
     (sym_SFC_network, 7612), (sym_initial_step, 7439), (sym_config_init, 3047),
     (sym_variable_access, 7530), (sym_func_call, 2961), (sym_stmt_list, 7970), (sym__stmt, 2024),
     (sym_assign, 3150), (sym_if_stmt, 3150), (sym_case_stmt, 3150), (sym_for_stmt, 3150),
     (sym_while_stmt, 3150), (sym_repeat_stmt, 3150), (sym_raise_stmt, 3150), (sym_try_stmt, 3150),
     (sym_ERR_clause_outside_try, 3150), (sym_begin_path_expression, 2943), (sym_invocation, 2934),
     (sym_any_invocation, 2935), (sym_this_invocation, 2641), (sym_super_invocation, 2641),
     (sym_super_body_invocation, 2935), (sym_path_expression, 2627), (sym_field_expression, 2373),
     (sym_index_expression, 2373), (sym_ladder_diagram, 7970), (sym_fb_diagram, 7970),
     (aux_sym_ERR_fb_variables_after_method_repeat1, 2347), (aux_sym_func_decl_repeat1, 7194),
     (aux_sym_fb_decl_repeat3, 812), (aux_sym_SFC_repeat1, 7612), (aux_sym_stmt_list_repeat1, 2024),
     (aux_sym_ladder_diagram_repeat1, 8009), (aux_sym_fb_diagram_repeat1, 8013),
     (sym_identifier, 298), (aux_sym_ERR_unexpected_this_in_path_token1, 304),
     (aux_sym_ERR_unexpected_super_in_path_token1, 306), (sym_line_comment, 3),
     (anon_sym_LBRACE, 308), (aux_sym_test_pragma_token1, 9), (aux_sym_once_pragma_token1, 11),
     (aux_sym_must_call_pragma_token1, 13), (aux_sym_export_pragma_token1, 15),
     (anon_sym_SEMI, 310), (anon_sym_PERCENT, 312), (aux_sym_input_decls_token1, 314),
     (aux_sym_output_decls_token1, 316), (aux_sym_in_out_decls_token1, 318),
     (aux_sym_var_decls_token1, 320), (aux_sym_temp_var_decls_token1, 322),
     (aux_sym_external_var_decls_token1, 324), (aux_sym_global_var_decls_token1, 326),
     (aux_sym_fb_decl_token4, 1832), (aux_sym_method_decl_token1, 330),
     (aux_sym_prog_access_decls_token1, 332), (aux_sym_initial_step_token1, 334),
     (aux_sym_config_init_token1, 336), (aux_sym__stmt_token1, 340), (aux_sym__stmt_token2, 340),
     (aux_sym__stmt_token3, 340), (aux_sym_if_stmt_token1, 342), (aux_sym_case_stmt_token1, 344),
     (aux_sym_for_stmt_token1, 346), (aux_sym_while_stmt_token1, 348),
     (aux_sym_repeat_stmt_token1, 350), (aux_sym_raise_stmt_token1, 352),
     (aux_sym_try_stmt_token1, 354), (aux_sym_try_stmt_token2, 356),
     (aux_sym_catch_clause_token1, 356), (aux_sym_finally_clause_token1, 356), (sym_ld_rung, 358),
     (sym_fbd_network, 360), (sym_c_style_comment, 3), (sym_pascal_style_comment, 3),
     (sym_pragma, 3)]"

lemma ts_parse_row_751_scan: "row_scan tokens_63_2 0 ts_parse_row_751 = Some (Suc (Suc (Suc (Suc 0))))"
  unfolding ts_parse_row_751_def by simp

text \<open>Lines 140185 to 140297.\<close>

definition ts_parse_row_752 :: parse_row where
  "ts_parse_row_752 =
    [(sym_ERR_assign_func_call, 7530), (sym_ERR_unexpected_this_in_path, 2372),
     (sym_ERR_unexpected_super_in_path, 2372), (sym_ERR_fb_variables_after_method, 1856),
     (sym_ERR_var_access_not_allowed, 3160), (sym_ERR_var_config_not_allowed, 3160),
     (sym_ERR_var_global_not_allowed, 3160), (sym_ERR_method_decl_in_body, 3150),
     (sym_extern_pragma, 7490), (sym_wasm_pragma, 3150), (sym_warn_pragma, 7490),
     (sym_allow_pragma, 3140), (sym_test_pragma, 7490), (sym_once_pragma, 7490),
     (sym_must_call_pragma, 7490), (sym_export_pragma, 7490), (sym_pou_pragma, 7194),
     (sym_direct_variable, 7675), (sym_deref_expression, 2373), (sym_variable, 7599),
     (sym_var_access, 2373), (sym_in_out_decls, 3160), (sym_var_decls, 3160),
     (sym_retain_var_decls, 3160), (sym_temp_var_decls, 3160), (sym_external_var_decls, 3160),
     (sym_global_var_decls, 2947), (sym_loc_partly_var_decl, 3160), (sym__fb_variables, 2347),
     (sym_fb_input_decls, 3160), (sym_fb_output_decls, 3160), (sym_no_retain_var_decls, 3160),
     (sym_fb_body, 9550), (sym_method_decl, 395), (sym_prog_access_decls, 3043), (sym_SFC, 7970),
     (sym_SFC_network, 7612), (sym_initial_step, 7439), (sym_config_init, 3047),
     (sym_variable_access, 7530), (sym_func_call, 2961), (sym_stmt_list, 7970), (sym__stmt, 2024),
     (sym_assign, 3150), (sym_if_stmt, 3150), (sym_case_stmt, 3150), (sym_for_stmt, 3150),
     (sym_while_stmt, 3150), (sym_repeat_stmt, 3150), (sym_raise_stmt, 3150), (sym_try_stmt, 3150),
     (sym_ERR_clause_outside_try, 3150), (sym_begin_path_expression, 2943), (sym_invocation, 2934),
     (sym_any_invocation, 2935), (sym_this_invocation, 2641), (sym_super_invocation, 2641),
     (sym_super_body_invocation, 2935), (sym_path_expression, 2627), (sym_field_expression, 2373),
     (sym_index_expression, 2373), (sym_ladder_diagram, 7970), (sym_fb_diagram, 7970),
     (aux_sym_ERR_fb_variables_after_method_repeat1, 2347), (aux_sym_func_decl_repeat1, 7194),
     (aux_sym_fb_decl_repeat3, 395), (aux_sym_SFC_repeat1, 7612), (aux_sym_stmt_list_repeat1, 2024),
     (aux_sym_ladder_diagram_repeat1, 8009), (aux_sym_fb_diagram_repeat1, 8013),
     (sym_identifier, 298), (aux_sym_ERR_unexpected_this_in_path_token1, 304),
     (aux_sym_ERR_unexpected_super_in_path_token1, 306), (sym_line_comment, 3),
     (anon_sym_LBRACE, 308), (aux_sym_test_pragma_token1, 9), (aux_sym_once_pragma_token1, 11),
     (aux_sym_must_call_pragma_token1, 13), (aux_sym_export_pragma_token1, 15),
     (anon_sym_SEMI, 310), (anon_sym_PERCENT, 312), (aux_sym_input_decls_token1, 314),
     (aux_sym_output_decls_token1, 316), (aux_sym_in_out_decls_token1, 318),
     (aux_sym_var_decls_token1, 320), (aux_sym_temp_var_decls_token1, 322),
     (aux_sym_external_var_decls_token1, 324), (aux_sym_global_var_decls_token1, 326),
     (aux_sym_fb_decl_token4, 1834), (aux_sym_method_decl_token1, 330),
     (aux_sym_prog_access_decls_token1, 332), (aux_sym_initial_step_token1, 334),
     (aux_sym_config_init_token1, 336), (aux_sym__stmt_token1, 340), (aux_sym__stmt_token2, 340),
     (aux_sym__stmt_token3, 340), (aux_sym_if_stmt_token1, 342), (aux_sym_case_stmt_token1, 344),
     (aux_sym_for_stmt_token1, 346), (aux_sym_while_stmt_token1, 348),
     (aux_sym_repeat_stmt_token1, 350), (aux_sym_raise_stmt_token1, 352),
     (aux_sym_try_stmt_token1, 354), (aux_sym_try_stmt_token2, 356),
     (aux_sym_catch_clause_token1, 356), (aux_sym_finally_clause_token1, 356), (sym_ld_rung, 358),
     (sym_fbd_network, 360), (sym_c_style_comment, 3), (sym_pascal_style_comment, 3),
     (sym_pragma, 3)]"

lemma ts_parse_row_752_scan: "row_scan tokens_63_2 0 ts_parse_row_752 = Some (Suc (Suc (Suc (Suc 0))))"
  unfolding ts_parse_row_752_def by simp

text \<open>Lines 140298 to 140410.\<close>

definition ts_parse_row_753 :: parse_row where
  "ts_parse_row_753 =
    [(sym_ERR_assign_func_call, 7530), (sym_ERR_unexpected_this_in_path, 2372),
     (sym_ERR_unexpected_super_in_path, 2372), (sym_ERR_fb_variables_after_method, 1738),
     (sym_ERR_var_access_not_allowed, 3160), (sym_ERR_var_config_not_allowed, 3160),
     (sym_ERR_var_global_not_allowed, 3160), (sym_ERR_method_decl_in_body, 3150),
     (sym_extern_pragma, 7490), (sym_wasm_pragma, 3150), (sym_warn_pragma, 7490),
     (sym_allow_pragma, 3140), (sym_test_pragma, 7490), (sym_once_pragma, 7490),
     (sym_must_call_pragma, 7490), (sym_export_pragma, 7490), (sym_pou_pragma, 7194),
     (sym_direct_variable, 7675), (sym_deref_expression, 2373), (sym_variable, 7599),
     (sym_var_access, 2373), (sym_in_out_decls, 3160), (sym_var_decls, 3160),
     (sym_retain_var_decls, 3160), (sym_temp_var_decls, 3160), (sym_external_var_decls, 3160),
     (sym_global_var_decls, 2947), (sym_loc_partly_var_decl, 3160), (sym__fb_variables, 2343),
     (sym_fb_input_decls, 3160), (sym_fb_output_decls, 3160), (sym_no_retain_var_decls, 3160),
     (sym_fb_body, 9629), (sym_method_decl, 2549), (sym_prog_access_decls, 3043), (sym_SFC, 7970),
     (sym_SFC_network, 7612), (sym_initial_step, 7439), (sym_config_init, 3047),
     (sym_variable_access, 7530), (sym_func_call, 2961), (sym_stmt_list, 7970), (sym__stmt, 2024),
     (sym_assign, 3150), (sym_if_stmt, 3150), (sym_case_stmt, 3150), (sym_for_stmt, 3150),
     (sym_while_stmt, 3150), (sym_repeat_stmt, 3150), (sym_raise_stmt, 3150), (sym_try_stmt, 3150),
     (sym_ERR_clause_outside_try, 3150), (sym_begin_path_expression, 2943), (sym_invocation, 2934),
     (sym_any_invocation, 2935), (sym_this_invocation, 2641), (sym_super_invocation, 2641),
     (sym_super_body_invocation, 2935), (sym_path_expression, 2627), (sym_field_expression, 2373),
     (sym_index_expression, 2373), (sym_ladder_diagram, 7970), (sym_fb_diagram, 7970),
     (aux_sym_ERR_fb_variables_after_method_repeat1, 2343), (aux_sym_func_decl_repeat1, 7194),
     (aux_sym_fb_decl_repeat3, 2549), (aux_sym_SFC_repeat1, 7612),
     (aux_sym_stmt_list_repeat1, 2024), (aux_sym_ladder_diagram_repeat1, 8009),
     (aux_sym_fb_diagram_repeat1, 8013), (sym_identifier, 298),
     (aux_sym_ERR_unexpected_this_in_path_token1, 304),
     (aux_sym_ERR_unexpected_super_in_path_token1, 306), (sym_line_comment, 3),
     (anon_sym_LBRACE, 308), (aux_sym_test_pragma_token1, 9), (aux_sym_once_pragma_token1, 11),
     (aux_sym_must_call_pragma_token1, 13), (aux_sym_export_pragma_token1, 15),
     (anon_sym_SEMI, 310), (anon_sym_PERCENT, 312), (aux_sym_input_decls_token1, 314),
     (aux_sym_output_decls_token1, 316), (aux_sym_in_out_decls_token1, 318),
     (aux_sym_var_decls_token1, 320), (aux_sym_temp_var_decls_token1, 322),
     (aux_sym_external_var_decls_token1, 324), (aux_sym_global_var_decls_token1, 326),
     (aux_sym_fb_decl_token4, 1836), (aux_sym_method_decl_token1, 330),
     (aux_sym_prog_access_decls_token1, 332), (aux_sym_initial_step_token1, 334),
     (aux_sym_config_init_token1, 336), (aux_sym__stmt_token1, 340), (aux_sym__stmt_token2, 340),
     (aux_sym__stmt_token3, 340), (aux_sym_if_stmt_token1, 342), (aux_sym_case_stmt_token1, 344),
     (aux_sym_for_stmt_token1, 346), (aux_sym_while_stmt_token1, 348),
     (aux_sym_repeat_stmt_token1, 350), (aux_sym_raise_stmt_token1, 352),
     (aux_sym_try_stmt_token1, 354), (aux_sym_try_stmt_token2, 356),
     (aux_sym_catch_clause_token1, 356), (aux_sym_finally_clause_token1, 356), (sym_ld_rung, 358),
     (sym_fbd_network, 360), (sym_c_style_comment, 3), (sym_pascal_style_comment, 3),
     (sym_pragma, 3)]"

lemma ts_parse_row_753_scan: "row_scan tokens_63_2 0 ts_parse_row_753 = Some (Suc (Suc (Suc (Suc 0))))"
  unfolding ts_parse_row_753_def by simp

text \<open>Lines 140411 to 140523.\<close>

definition ts_parse_row_754 :: parse_row where
  "ts_parse_row_754 =
    [(sym_ERR_assign_func_call, 7530), (sym_ERR_unexpected_this_in_path, 2372),
     (sym_ERR_unexpected_super_in_path, 2372), (sym_ERR_fb_variables_after_method, 1739),
     (sym_ERR_var_access_not_allowed, 3160), (sym_ERR_var_config_not_allowed, 3160),
     (sym_ERR_var_global_not_allowed, 3160), (sym_ERR_method_decl_in_body, 3150),
     (sym_extern_pragma, 7490), (sym_wasm_pragma, 3150), (sym_warn_pragma, 7490),
     (sym_allow_pragma, 3140), (sym_test_pragma, 7490), (sym_once_pragma, 7490),
     (sym_must_call_pragma, 7490), (sym_export_pragma, 7490), (sym_pou_pragma, 7194),
     (sym_direct_variable, 7675), (sym_deref_expression, 2373), (sym_variable, 7599),
     (sym_var_access, 2373), (sym_in_out_decls, 3160), (sym_var_decls, 3160),
     (sym_retain_var_decls, 3160), (sym_temp_var_decls, 3160), (sym_external_var_decls, 3160),
     (sym_global_var_decls, 2947), (sym_loc_partly_var_decl, 3160), (sym__fb_variables, 2343),
     (sym_fb_input_decls, 3160), (sym_fb_output_decls, 3160), (sym_no_retain_var_decls, 3160),
     (sym_fb_body, 9660), (sym_method_decl, 2549), (sym_prog_access_decls, 3043), (sym_SFC, 7970),
     (sym_SFC_network, 7612), (sym_initial_step, 7439), (sym_config_init, 3047),
     (sym_variable_access, 7530), (sym_func_call, 2961), (sym_stmt_list, 7970), (sym__stmt, 2024),
     (sym_assign, 3150), (sym_if_stmt, 3150), (sym_case_stmt, 3150), (sym_for_stmt, 3150),
     (sym_while_stmt, 3150), (sym_repeat_stmt, 3150), (sym_raise_stmt, 3150), (sym_try_stmt, 3150),
     (sym_ERR_clause_outside_try, 3150), (sym_begin_path_expression, 2943), (sym_invocation, 2934),
     (sym_any_invocation, 2935), (sym_this_invocation, 2641), (sym_super_invocation, 2641),
     (sym_super_body_invocation, 2935), (sym_path_expression, 2627), (sym_field_expression, 2373),
     (sym_index_expression, 2373), (sym_ladder_diagram, 7970), (sym_fb_diagram, 7970),
     (aux_sym_ERR_fb_variables_after_method_repeat1, 2343), (aux_sym_func_decl_repeat1, 7194),
     (aux_sym_fb_decl_repeat3, 2549), (aux_sym_SFC_repeat1, 7612),
     (aux_sym_stmt_list_repeat1, 2024), (aux_sym_ladder_diagram_repeat1, 8009),
     (aux_sym_fb_diagram_repeat1, 8013), (sym_identifier, 298),
     (aux_sym_ERR_unexpected_this_in_path_token1, 304),
     (aux_sym_ERR_unexpected_super_in_path_token1, 306), (sym_line_comment, 3),
     (anon_sym_LBRACE, 308), (aux_sym_test_pragma_token1, 9), (aux_sym_once_pragma_token1, 11),
     (aux_sym_must_call_pragma_token1, 13), (aux_sym_export_pragma_token1, 15),
     (anon_sym_SEMI, 310), (anon_sym_PERCENT, 312), (aux_sym_input_decls_token1, 314),
     (aux_sym_output_decls_token1, 316), (aux_sym_in_out_decls_token1, 318),
     (aux_sym_var_decls_token1, 320), (aux_sym_temp_var_decls_token1, 322),
     (aux_sym_external_var_decls_token1, 324), (aux_sym_global_var_decls_token1, 326),
     (aux_sym_fb_decl_token4, 1838), (aux_sym_method_decl_token1, 330),
     (aux_sym_prog_access_decls_token1, 332), (aux_sym_initial_step_token1, 334),
     (aux_sym_config_init_token1, 336), (aux_sym__stmt_token1, 340), (aux_sym__stmt_token2, 340),
     (aux_sym__stmt_token3, 340), (aux_sym_if_stmt_token1, 342), (aux_sym_case_stmt_token1, 344),
     (aux_sym_for_stmt_token1, 346), (aux_sym_while_stmt_token1, 348),
     (aux_sym_repeat_stmt_token1, 350), (aux_sym_raise_stmt_token1, 352),
     (aux_sym_try_stmt_token1, 354), (aux_sym_try_stmt_token2, 356),
     (aux_sym_catch_clause_token1, 356), (aux_sym_finally_clause_token1, 356), (sym_ld_rung, 358),
     (sym_fbd_network, 360), (sym_c_style_comment, 3), (sym_pascal_style_comment, 3),
     (sym_pragma, 3)]"

lemma ts_parse_row_754_scan: "row_scan tokens_63_2 0 ts_parse_row_754 = Some (Suc (Suc (Suc (Suc 0))))"
  unfolding ts_parse_row_754_def by simp

text \<open>Lines 140524 to 140636.\<close>

definition ts_parse_row_755 :: parse_row where
  "ts_parse_row_755 =
    [(sym_ERR_assign_func_call, 7530), (sym_ERR_unexpected_this_in_path, 2372),
     (sym_ERR_unexpected_super_in_path, 2372), (sym_ERR_fb_variables_after_method, 1740),
     (sym_ERR_var_access_not_allowed, 3160), (sym_ERR_var_config_not_allowed, 3160),
     (sym_ERR_var_global_not_allowed, 3160), (sym_ERR_method_decl_in_body, 3150),
     (sym_extern_pragma, 7490), (sym_wasm_pragma, 3150), (sym_warn_pragma, 7490),
     (sym_allow_pragma, 3140), (sym_test_pragma, 7490), (sym_once_pragma, 7490),
     (sym_must_call_pragma, 7490), (sym_export_pragma, 7490), (sym_pou_pragma, 7194),
     (sym_direct_variable, 7675), (sym_deref_expression, 2373), (sym_variable, 7599),
     (sym_var_access, 2373), (sym_in_out_decls, 3160), (sym_var_decls, 3160),
     (sym_retain_var_decls, 3160), (sym_temp_var_decls, 3160), (sym_external_var_decls, 3160),
     (sym_global_var_decls, 2947), (sym_loc_partly_var_decl, 3160), (sym__fb_variables, 2343),
     (sym_fb_input_decls, 3160), (sym_fb_output_decls, 3160), (sym_no_retain_var_decls, 3160),
     (sym_fb_body, 9744), (sym_method_decl, 2549), (sym_prog_access_decls, 3043), (sym_SFC, 7970),
     (sym_SFC_network, 7612), (sym_initial_step, 7439), (sym_config_init, 3047),
     (sym_variable_access, 7530), (sym_func_call, 2961), (sym_stmt_list, 7970), (sym__stmt, 2024),
     (sym_assign, 3150), (sym_if_stmt, 3150), (sym_case_stmt, 3150), (sym_for_stmt, 3150),
     (sym_while_stmt, 3150), (sym_repeat_stmt, 3150), (sym_raise_stmt, 3150), (sym_try_stmt, 3150),
     (sym_ERR_clause_outside_try, 3150), (sym_begin_path_expression, 2943), (sym_invocation, 2934),
     (sym_any_invocation, 2935), (sym_this_invocation, 2641), (sym_super_invocation, 2641),
     (sym_super_body_invocation, 2935), (sym_path_expression, 2627), (sym_field_expression, 2373),
     (sym_index_expression, 2373), (sym_ladder_diagram, 7970), (sym_fb_diagram, 7970),
     (aux_sym_ERR_fb_variables_after_method_repeat1, 2343), (aux_sym_func_decl_repeat1, 7194),
     (aux_sym_fb_decl_repeat3, 2549), (aux_sym_SFC_repeat1, 7612),
     (aux_sym_stmt_list_repeat1, 2024), (aux_sym_ladder_diagram_repeat1, 8009),
     (aux_sym_fb_diagram_repeat1, 8013), (sym_identifier, 298),
     (aux_sym_ERR_unexpected_this_in_path_token1, 304),
     (aux_sym_ERR_unexpected_super_in_path_token1, 306), (sym_line_comment, 3),
     (anon_sym_LBRACE, 308), (aux_sym_test_pragma_token1, 9), (aux_sym_once_pragma_token1, 11),
     (aux_sym_must_call_pragma_token1, 13), (aux_sym_export_pragma_token1, 15),
     (anon_sym_SEMI, 310), (anon_sym_PERCENT, 312), (aux_sym_input_decls_token1, 314),
     (aux_sym_output_decls_token1, 316), (aux_sym_in_out_decls_token1, 318),
     (aux_sym_var_decls_token1, 320), (aux_sym_temp_var_decls_token1, 322),
     (aux_sym_external_var_decls_token1, 324), (aux_sym_global_var_decls_token1, 326),
     (aux_sym_fb_decl_token4, 1840), (aux_sym_method_decl_token1, 330),
     (aux_sym_prog_access_decls_token1, 332), (aux_sym_initial_step_token1, 334),
     (aux_sym_config_init_token1, 336), (aux_sym__stmt_token1, 340), (aux_sym__stmt_token2, 340),
     (aux_sym__stmt_token3, 340), (aux_sym_if_stmt_token1, 342), (aux_sym_case_stmt_token1, 344),
     (aux_sym_for_stmt_token1, 346), (aux_sym_while_stmt_token1, 348),
     (aux_sym_repeat_stmt_token1, 350), (aux_sym_raise_stmt_token1, 352),
     (aux_sym_try_stmt_token1, 354), (aux_sym_try_stmt_token2, 356),
     (aux_sym_catch_clause_token1, 356), (aux_sym_finally_clause_token1, 356), (sym_ld_rung, 358),
     (sym_fbd_network, 360), (sym_c_style_comment, 3), (sym_pascal_style_comment, 3),
     (sym_pragma, 3)]"

lemma ts_parse_row_755_scan: "row_scan tokens_63_2 0 ts_parse_row_755 = Some (Suc (Suc (Suc (Suc 0))))"
  unfolding ts_parse_row_755_def by simp

text \<open>Lines 140637 to 140749.\<close>

definition ts_parse_row_756 :: parse_row where
  "ts_parse_row_756 =
    [(sym_ERR_assign_func_call, 7530), (sym_ERR_unexpected_this_in_path, 2372),
     (sym_ERR_unexpected_super_in_path, 2372), (sym_ERR_fb_variables_after_method, 1741),
     (sym_ERR_var_access_not_allowed, 3160), (sym_ERR_var_config_not_allowed, 3160),
     (sym_ERR_var_global_not_allowed, 3160), (sym_ERR_method_decl_in_body, 3150),
     (sym_extern_pragma, 7490), (sym_wasm_pragma, 3150), (sym_warn_pragma, 7490),
     (sym_allow_pragma, 3140), (sym_test_pragma, 7490), (sym_once_pragma, 7490),
     (sym_must_call_pragma, 7490), (sym_export_pragma, 7490), (sym_pou_pragma, 7194),
     (sym_direct_variable, 7675), (sym_deref_expression, 2373), (sym_variable, 7599),
     (sym_var_access, 2373), (sym_in_out_decls, 3160), (sym_var_decls, 3160),
     (sym_retain_var_decls, 3160), (sym_temp_var_decls, 3160), (sym_external_var_decls, 3160),
     (sym_global_var_decls, 2947), (sym_loc_partly_var_decl, 3160), (sym__fb_variables, 2343),
     (sym_fb_input_decls, 3160), (sym_fb_output_decls, 3160), (sym_no_retain_var_decls, 3160),
     (sym_fb_body, 9830), (sym_method_decl, 2549), (sym_prog_access_decls, 3043), (sym_SFC, 7970),
     (sym_SFC_network, 7612), (sym_initial_step, 7439), (sym_config_init, 3047),
     (sym_variable_access, 7530), (sym_func_call, 2961), (sym_stmt_list, 7970), (sym__stmt, 2024),
     (sym_assign, 3150), (sym_if_stmt, 3150), (sym_case_stmt, 3150), (sym_for_stmt, 3150),
     (sym_while_stmt, 3150), (sym_repeat_stmt, 3150), (sym_raise_stmt, 3150), (sym_try_stmt, 3150),
     (sym_ERR_clause_outside_try, 3150), (sym_begin_path_expression, 2943), (sym_invocation, 2934),
     (sym_any_invocation, 2935), (sym_this_invocation, 2641), (sym_super_invocation, 2641),
     (sym_super_body_invocation, 2935), (sym_path_expression, 2627), (sym_field_expression, 2373),
     (sym_index_expression, 2373), (sym_ladder_diagram, 7970), (sym_fb_diagram, 7970),
     (aux_sym_ERR_fb_variables_after_method_repeat1, 2343), (aux_sym_func_decl_repeat1, 7194),
     (aux_sym_fb_decl_repeat3, 2549), (aux_sym_SFC_repeat1, 7612),
     (aux_sym_stmt_list_repeat1, 2024), (aux_sym_ladder_diagram_repeat1, 8009),
     (aux_sym_fb_diagram_repeat1, 8013), (sym_identifier, 298),
     (aux_sym_ERR_unexpected_this_in_path_token1, 304),
     (aux_sym_ERR_unexpected_super_in_path_token1, 306), (sym_line_comment, 3),
     (anon_sym_LBRACE, 308), (aux_sym_test_pragma_token1, 9), (aux_sym_once_pragma_token1, 11),
     (aux_sym_must_call_pragma_token1, 13), (aux_sym_export_pragma_token1, 15),
     (anon_sym_SEMI, 310), (anon_sym_PERCENT, 312), (aux_sym_input_decls_token1, 314),
     (aux_sym_output_decls_token1, 316), (aux_sym_in_out_decls_token1, 318),
     (aux_sym_var_decls_token1, 320), (aux_sym_temp_var_decls_token1, 322),
     (aux_sym_external_var_decls_token1, 324), (aux_sym_global_var_decls_token1, 326),
     (aux_sym_fb_decl_token4, 1842), (aux_sym_method_decl_token1, 330),
     (aux_sym_prog_access_decls_token1, 332), (aux_sym_initial_step_token1, 334),
     (aux_sym_config_init_token1, 336), (aux_sym__stmt_token1, 340), (aux_sym__stmt_token2, 340),
     (aux_sym__stmt_token3, 340), (aux_sym_if_stmt_token1, 342), (aux_sym_case_stmt_token1, 344),
     (aux_sym_for_stmt_token1, 346), (aux_sym_while_stmt_token1, 348),
     (aux_sym_repeat_stmt_token1, 350), (aux_sym_raise_stmt_token1, 352),
     (aux_sym_try_stmt_token1, 354), (aux_sym_try_stmt_token2, 356),
     (aux_sym_catch_clause_token1, 356), (aux_sym_finally_clause_token1, 356), (sym_ld_rung, 358),
     (sym_fbd_network, 360), (sym_c_style_comment, 3), (sym_pascal_style_comment, 3),
     (sym_pragma, 3)]"

lemma ts_parse_row_756_scan: "row_scan tokens_63_2 0 ts_parse_row_756 = Some (Suc (Suc (Suc (Suc 0))))"
  unfolding ts_parse_row_756_def by simp

text \<open>Lines 140750 to 140862.\<close>

definition ts_parse_row_757 :: parse_row where
  "ts_parse_row_757 =
    [(sym_ERR_assign_func_call, 7530), (sym_ERR_unexpected_this_in_path, 2372),
     (sym_ERR_unexpected_super_in_path, 2372), (sym_ERR_fb_variables_after_method, 1742),
     (sym_ERR_var_access_not_allowed, 3160), (sym_ERR_var_config_not_allowed, 3160),
     (sym_ERR_var_global_not_allowed, 3160), (sym_ERR_method_decl_in_body, 3150),
     (sym_extern_pragma, 7490), (sym_wasm_pragma, 3150), (sym_warn_pragma, 7490),
     (sym_allow_pragma, 3140), (sym_test_pragma, 7490), (sym_once_pragma, 7490),
     (sym_must_call_pragma, 7490), (sym_export_pragma, 7490), (sym_pou_pragma, 7194),
     (sym_direct_variable, 7675), (sym_deref_expression, 2373), (sym_variable, 7599),
     (sym_var_access, 2373), (sym_in_out_decls, 3160), (sym_var_decls, 3160),
     (sym_retain_var_decls, 3160), (sym_temp_var_decls, 3160), (sym_external_var_decls, 3160),
     (sym_global_var_decls, 2947), (sym_loc_partly_var_decl, 3160), (sym__fb_variables, 2343),
     (sym_fb_input_decls, 3160), (sym_fb_output_decls, 3160), (sym_no_retain_var_decls, 3160),
     (sym_fb_body, 9862), (sym_method_decl, 2549), (sym_prog_access_decls, 3043), (sym_SFC, 7970),
     (sym_SFC_network, 7612), (sym_initial_step, 7439), (sym_config_init, 3047),
     (sym_variable_access, 7530), (sym_func_call, 2961), (sym_stmt_list, 7970), (sym__stmt, 2024),
     (sym_assign, 3150), (sym_if_stmt, 3150), (sym_case_stmt, 3150), (sym_for_stmt, 3150),
     (sym_while_stmt, 3150), (sym_repeat_stmt, 3150), (sym_raise_stmt, 3150), (sym_try_stmt, 3150),
     (sym_ERR_clause_outside_try, 3150), (sym_begin_path_expression, 2943), (sym_invocation, 2934),
     (sym_any_invocation, 2935), (sym_this_invocation, 2641), (sym_super_invocation, 2641),
     (sym_super_body_invocation, 2935), (sym_path_expression, 2627), (sym_field_expression, 2373),
     (sym_index_expression, 2373), (sym_ladder_diagram, 7970), (sym_fb_diagram, 7970),
     (aux_sym_ERR_fb_variables_after_method_repeat1, 2343), (aux_sym_func_decl_repeat1, 7194),
     (aux_sym_fb_decl_repeat3, 2549), (aux_sym_SFC_repeat1, 7612),
     (aux_sym_stmt_list_repeat1, 2024), (aux_sym_ladder_diagram_repeat1, 8009),
     (aux_sym_fb_diagram_repeat1, 8013), (sym_identifier, 298),
     (aux_sym_ERR_unexpected_this_in_path_token1, 304),
     (aux_sym_ERR_unexpected_super_in_path_token1, 306), (sym_line_comment, 3),
     (anon_sym_LBRACE, 308), (aux_sym_test_pragma_token1, 9), (aux_sym_once_pragma_token1, 11),
     (aux_sym_must_call_pragma_token1, 13), (aux_sym_export_pragma_token1, 15),
     (anon_sym_SEMI, 310), (anon_sym_PERCENT, 312), (aux_sym_input_decls_token1, 314),
     (aux_sym_output_decls_token1, 316), (aux_sym_in_out_decls_token1, 318),
     (aux_sym_var_decls_token1, 320), (aux_sym_temp_var_decls_token1, 322),
     (aux_sym_external_var_decls_token1, 324), (aux_sym_global_var_decls_token1, 326),
     (aux_sym_fb_decl_token4, 1844), (aux_sym_method_decl_token1, 330),
     (aux_sym_prog_access_decls_token1, 332), (aux_sym_initial_step_token1, 334),
     (aux_sym_config_init_token1, 336), (aux_sym__stmt_token1, 340), (aux_sym__stmt_token2, 340),
     (aux_sym__stmt_token3, 340), (aux_sym_if_stmt_token1, 342), (aux_sym_case_stmt_token1, 344),
     (aux_sym_for_stmt_token1, 346), (aux_sym_while_stmt_token1, 348),
     (aux_sym_repeat_stmt_token1, 350), (aux_sym_raise_stmt_token1, 352),
     (aux_sym_try_stmt_token1, 354), (aux_sym_try_stmt_token2, 356),
     (aux_sym_catch_clause_token1, 356), (aux_sym_finally_clause_token1, 356), (sym_ld_rung, 358),
     (sym_fbd_network, 360), (sym_c_style_comment, 3), (sym_pascal_style_comment, 3),
     (sym_pragma, 3)]"

lemma ts_parse_row_757_scan: "row_scan tokens_63_2 0 ts_parse_row_757 = Some (Suc (Suc (Suc (Suc 0))))"
  unfolding ts_parse_row_757_def by simp

text \<open>Lines 140863 to 140975.\<close>

definition ts_parse_row_758 :: parse_row where
  "ts_parse_row_758 =
    [(sym_ERR_assign_func_call, 7530), (sym_ERR_unexpected_this_in_path, 2372),
     (sym_ERR_unexpected_super_in_path, 2372), (sym_ERR_fb_variables_after_method, 1743),
     (sym_ERR_var_access_not_allowed, 3160), (sym_ERR_var_config_not_allowed, 3160),
     (sym_ERR_var_global_not_allowed, 3160), (sym_ERR_method_decl_in_body, 3150),
     (sym_extern_pragma, 7490), (sym_wasm_pragma, 3150), (sym_warn_pragma, 7490),
     (sym_allow_pragma, 3140), (sym_test_pragma, 7490), (sym_once_pragma, 7490),
     (sym_must_call_pragma, 7490), (sym_export_pragma, 7490), (sym_pou_pragma, 7194),
     (sym_direct_variable, 7675), (sym_deref_expression, 2373), (sym_variable, 7599),
     (sym_var_access, 2373), (sym_in_out_decls, 3160), (sym_var_decls, 3160),
     (sym_retain_var_decls, 3160), (sym_temp_var_decls, 3160), (sym_external_var_decls, 3160),
     (sym_global_var_decls, 2947), (sym_loc_partly_var_decl, 3160), (sym__fb_variables, 2343),
     (sym_fb_input_decls, 3160), (sym_fb_output_decls, 3160), (sym_no_retain_var_decls, 3160),
     (sym_fb_body, 9877), (sym_method_decl, 2549), (sym_prog_access_decls, 3043), (sym_SFC, 7970),
     (sym_SFC_network, 7612), (sym_initial_step, 7439), (sym_config_init, 3047),
     (sym_variable_access, 7530), (sym_func_call, 2961), (sym_stmt_list, 7970), (sym__stmt, 2024),
     (sym_assign, 3150), (sym_if_stmt, 3150), (sym_case_stmt, 3150), (sym_for_stmt, 3150),
     (sym_while_stmt, 3150), (sym_repeat_stmt, 3150), (sym_raise_stmt, 3150), (sym_try_stmt, 3150),
     (sym_ERR_clause_outside_try, 3150), (sym_begin_path_expression, 2943), (sym_invocation, 2934),
     (sym_any_invocation, 2935), (sym_this_invocation, 2641), (sym_super_invocation, 2641),
     (sym_super_body_invocation, 2935), (sym_path_expression, 2627), (sym_field_expression, 2373),
     (sym_index_expression, 2373), (sym_ladder_diagram, 7970), (sym_fb_diagram, 7970),
     (aux_sym_ERR_fb_variables_after_method_repeat1, 2343), (aux_sym_func_decl_repeat1, 7194),
     (aux_sym_fb_decl_repeat3, 2549), (aux_sym_SFC_repeat1, 7612),
     (aux_sym_stmt_list_repeat1, 2024), (aux_sym_ladder_diagram_repeat1, 8009),
     (aux_sym_fb_diagram_repeat1, 8013), (sym_identifier, 298),
     (aux_sym_ERR_unexpected_this_in_path_token1, 304),
     (aux_sym_ERR_unexpected_super_in_path_token1, 306), (sym_line_comment, 3),
     (anon_sym_LBRACE, 308), (aux_sym_test_pragma_token1, 9), (aux_sym_once_pragma_token1, 11),
     (aux_sym_must_call_pragma_token1, 13), (aux_sym_export_pragma_token1, 15),
     (anon_sym_SEMI, 310), (anon_sym_PERCENT, 312), (aux_sym_input_decls_token1, 314),
     (aux_sym_output_decls_token1, 316), (aux_sym_in_out_decls_token1, 318),
     (aux_sym_var_decls_token1, 320), (aux_sym_temp_var_decls_token1, 322),
     (aux_sym_external_var_decls_token1, 324), (aux_sym_global_var_decls_token1, 326),
     (aux_sym_fb_decl_token4, 1846), (aux_sym_method_decl_token1, 330),
     (aux_sym_prog_access_decls_token1, 332), (aux_sym_initial_step_token1, 334),
     (aux_sym_config_init_token1, 336), (aux_sym__stmt_token1, 340), (aux_sym__stmt_token2, 340),
     (aux_sym__stmt_token3, 340), (aux_sym_if_stmt_token1, 342), (aux_sym_case_stmt_token1, 344),
     (aux_sym_for_stmt_token1, 346), (aux_sym_while_stmt_token1, 348),
     (aux_sym_repeat_stmt_token1, 350), (aux_sym_raise_stmt_token1, 352),
     (aux_sym_try_stmt_token1, 354), (aux_sym_try_stmt_token2, 356),
     (aux_sym_catch_clause_token1, 356), (aux_sym_finally_clause_token1, 356), (sym_ld_rung, 358),
     (sym_fbd_network, 360), (sym_c_style_comment, 3), (sym_pascal_style_comment, 3),
     (sym_pragma, 3)]"

lemma ts_parse_row_758_scan: "row_scan tokens_63_2 0 ts_parse_row_758 = Some (Suc (Suc (Suc (Suc 0))))"
  unfolding ts_parse_row_758_def by simp

text \<open>Lines 140976 to 141088.\<close>

definition ts_parse_row_759 :: parse_row where
  "ts_parse_row_759 =
    [(sym_ERR_assign_func_call, 7530), (sym_ERR_unexpected_this_in_path, 2372),
     (sym_ERR_unexpected_super_in_path, 2372), (sym_ERR_fb_variables_after_method, 1744),
     (sym_ERR_var_access_not_allowed, 3160), (sym_ERR_var_config_not_allowed, 3160),
     (sym_ERR_var_global_not_allowed, 3160), (sym_ERR_method_decl_in_body, 3150),
     (sym_extern_pragma, 7490), (sym_wasm_pragma, 3150), (sym_warn_pragma, 7490),
     (sym_allow_pragma, 3140), (sym_test_pragma, 7490), (sym_once_pragma, 7490),
     (sym_must_call_pragma, 7490), (sym_export_pragma, 7490), (sym_pou_pragma, 7194),
     (sym_direct_variable, 7675), (sym_deref_expression, 2373), (sym_variable, 7599),
     (sym_var_access, 2373), (sym_in_out_decls, 3160), (sym_var_decls, 3160),
     (sym_retain_var_decls, 3160), (sym_temp_var_decls, 3160), (sym_external_var_decls, 3160),
     (sym_global_var_decls, 2947), (sym_loc_partly_var_decl, 3160), (sym__fb_variables, 2343),
     (sym_fb_input_decls, 3160), (sym_fb_output_decls, 3160), (sym_no_retain_var_decls, 3160),
     (sym_fb_body, 9887), (sym_method_decl, 2549), (sym_prog_access_decls, 3043), (sym_SFC, 7970),
     (sym_SFC_network, 7612), (sym_initial_step, 7439), (sym_config_init, 3047),
     (sym_variable_access, 7530), (sym_func_call, 2961), (sym_stmt_list, 7970), (sym__stmt, 2024),
     (sym_assign, 3150), (sym_if_stmt, 3150), (sym_case_stmt, 3150), (sym_for_stmt, 3150),
     (sym_while_stmt, 3150), (sym_repeat_stmt, 3150), (sym_raise_stmt, 3150), (sym_try_stmt, 3150),
     (sym_ERR_clause_outside_try, 3150), (sym_begin_path_expression, 2943), (sym_invocation, 2934),
     (sym_any_invocation, 2935), (sym_this_invocation, 2641), (sym_super_invocation, 2641),
     (sym_super_body_invocation, 2935), (sym_path_expression, 2627), (sym_field_expression, 2373),
     (sym_index_expression, 2373), (sym_ladder_diagram, 7970), (sym_fb_diagram, 7970),
     (aux_sym_ERR_fb_variables_after_method_repeat1, 2343), (aux_sym_func_decl_repeat1, 7194),
     (aux_sym_fb_decl_repeat3, 2549), (aux_sym_SFC_repeat1, 7612),
     (aux_sym_stmt_list_repeat1, 2024), (aux_sym_ladder_diagram_repeat1, 8009),
     (aux_sym_fb_diagram_repeat1, 8013), (sym_identifier, 298),
     (aux_sym_ERR_unexpected_this_in_path_token1, 304),
     (aux_sym_ERR_unexpected_super_in_path_token1, 306), (sym_line_comment, 3),
     (anon_sym_LBRACE, 308), (aux_sym_test_pragma_token1, 9), (aux_sym_once_pragma_token1, 11),
     (aux_sym_must_call_pragma_token1, 13), (aux_sym_export_pragma_token1, 15),
     (anon_sym_SEMI, 310), (anon_sym_PERCENT, 312), (aux_sym_input_decls_token1, 314),
     (aux_sym_output_decls_token1, 316), (aux_sym_in_out_decls_token1, 318),
     (aux_sym_var_decls_token1, 320), (aux_sym_temp_var_decls_token1, 322),
     (aux_sym_external_var_decls_token1, 324), (aux_sym_global_var_decls_token1, 326),
     (aux_sym_fb_decl_token4, 1848), (aux_sym_method_decl_token1, 330),
     (aux_sym_prog_access_decls_token1, 332), (aux_sym_initial_step_token1, 334),
     (aux_sym_config_init_token1, 336), (aux_sym__stmt_token1, 340), (aux_sym__stmt_token2, 340),
     (aux_sym__stmt_token3, 340), (aux_sym_if_stmt_token1, 342), (aux_sym_case_stmt_token1, 344),
     (aux_sym_for_stmt_token1, 346), (aux_sym_while_stmt_token1, 348),
     (aux_sym_repeat_stmt_token1, 350), (aux_sym_raise_stmt_token1, 352),
     (aux_sym_try_stmt_token1, 354), (aux_sym_try_stmt_token2, 356),
     (aux_sym_catch_clause_token1, 356), (aux_sym_finally_clause_token1, 356), (sym_ld_rung, 358),
     (sym_fbd_network, 360), (sym_c_style_comment, 3), (sym_pascal_style_comment, 3),
     (sym_pragma, 3)]"

lemma ts_parse_row_759_scan: "row_scan tokens_63_2 0 ts_parse_row_759 = Some (Suc (Suc (Suc (Suc 0))))"
  unfolding ts_parse_row_759_def by simp

text \<open>Lines 141089 to 141201.\<close>

definition ts_parse_row_760 :: parse_row where
  "ts_parse_row_760 =
    [(sym_ERR_assign_func_call, 7530), (sym_ERR_unexpected_this_in_path, 2372),
     (sym_ERR_unexpected_super_in_path, 2372), (sym_ERR_fb_variables_after_method, 1745),
     (sym_ERR_var_access_not_allowed, 3160), (sym_ERR_var_config_not_allowed, 3160),
     (sym_ERR_var_global_not_allowed, 3160), (sym_ERR_method_decl_in_body, 3150),
     (sym_extern_pragma, 7490), (sym_wasm_pragma, 3150), (sym_warn_pragma, 7490),
     (sym_allow_pragma, 3140), (sym_test_pragma, 7490), (sym_once_pragma, 7490),
     (sym_must_call_pragma, 7490), (sym_export_pragma, 7490), (sym_pou_pragma, 7194),
     (sym_direct_variable, 7675), (sym_deref_expression, 2373), (sym_variable, 7599),
     (sym_var_access, 2373), (sym_in_out_decls, 3160), (sym_var_decls, 3160),
     (sym_retain_var_decls, 3160), (sym_temp_var_decls, 3160), (sym_external_var_decls, 3160),
     (sym_global_var_decls, 2947), (sym_loc_partly_var_decl, 3160), (sym__fb_variables, 2347),
     (sym_fb_input_decls, 3160), (sym_fb_output_decls, 3160), (sym_no_retain_var_decls, 3160),
     (sym_fb_body, 9894), (sym_method_decl, 815), (sym_prog_access_decls, 3043), (sym_SFC, 7970),
     (sym_SFC_network, 7612), (sym_initial_step, 7439), (sym_config_init, 3047),
     (sym_variable_access, 7530), (sym_func_call, 2961), (sym_stmt_list, 7970), (sym__stmt, 2024),
     (sym_assign, 3150), (sym_if_stmt, 3150), (sym_case_stmt, 3150), (sym_for_stmt, 3150),
     (sym_while_stmt, 3150), (sym_repeat_stmt, 3150), (sym_raise_stmt, 3150), (sym_try_stmt, 3150),
     (sym_ERR_clause_outside_try, 3150), (sym_begin_path_expression, 2943), (sym_invocation, 2934),
     (sym_any_invocation, 2935), (sym_this_invocation, 2641), (sym_super_invocation, 2641),
     (sym_super_body_invocation, 2935), (sym_path_expression, 2627), (sym_field_expression, 2373),
     (sym_index_expression, 2373), (sym_ladder_diagram, 7970), (sym_fb_diagram, 7970),
     (aux_sym_ERR_fb_variables_after_method_repeat1, 2347), (aux_sym_func_decl_repeat1, 7194),
     (aux_sym_fb_decl_repeat3, 815), (aux_sym_SFC_repeat1, 7612), (aux_sym_stmt_list_repeat1, 2024),
     (aux_sym_ladder_diagram_repeat1, 8009), (aux_sym_fb_diagram_repeat1, 8013),
     (sym_identifier, 298), (aux_sym_ERR_unexpected_this_in_path_token1, 304),
     (aux_sym_ERR_unexpected_super_in_path_token1, 306), (sym_line_comment, 3),
     (anon_sym_LBRACE, 308), (aux_sym_test_pragma_token1, 9), (aux_sym_once_pragma_token1, 11),
     (aux_sym_must_call_pragma_token1, 13), (aux_sym_export_pragma_token1, 15),
     (anon_sym_SEMI, 310), (anon_sym_PERCENT, 312), (aux_sym_input_decls_token1, 314),
     (aux_sym_output_decls_token1, 316), (aux_sym_in_out_decls_token1, 318),
     (aux_sym_var_decls_token1, 320), (aux_sym_temp_var_decls_token1, 322),
     (aux_sym_external_var_decls_token1, 324), (aux_sym_global_var_decls_token1, 326),
     (aux_sym_fb_decl_token4, 1850), (aux_sym_method_decl_token1, 330),
     (aux_sym_prog_access_decls_token1, 332), (aux_sym_initial_step_token1, 334),
     (aux_sym_config_init_token1, 336), (aux_sym__stmt_token1, 340), (aux_sym__stmt_token2, 340),
     (aux_sym__stmt_token3, 340), (aux_sym_if_stmt_token1, 342), (aux_sym_case_stmt_token1, 344),
     (aux_sym_for_stmt_token1, 346), (aux_sym_while_stmt_token1, 348),
     (aux_sym_repeat_stmt_token1, 350), (aux_sym_raise_stmt_token1, 352),
     (aux_sym_try_stmt_token1, 354), (aux_sym_try_stmt_token2, 356),
     (aux_sym_catch_clause_token1, 356), (aux_sym_finally_clause_token1, 356), (sym_ld_rung, 358),
     (sym_fbd_network, 360), (sym_c_style_comment, 3), (sym_pascal_style_comment, 3),
     (sym_pragma, 3)]"

lemma ts_parse_row_760_scan: "row_scan tokens_63_2 0 ts_parse_row_760 = Some (Suc (Suc (Suc (Suc 0))))"
  unfolding ts_parse_row_760_def by simp

text \<open>Lines 141202 to 141314.\<close>

definition ts_parse_row_761 :: parse_row where
  "ts_parse_row_761 =
    [(sym_ERR_assign_func_call, 7530), (sym_ERR_unexpected_this_in_path, 2372),
     (sym_ERR_unexpected_super_in_path, 2372), (sym_ERR_fb_variables_after_method, 1747),
     (sym_ERR_var_access_not_allowed, 3160), (sym_ERR_var_config_not_allowed, 3160),
     (sym_ERR_var_global_not_allowed, 3160), (sym_ERR_method_decl_in_body, 3150),
     (sym_extern_pragma, 7490), (sym_wasm_pragma, 3150), (sym_warn_pragma, 7490),
     (sym_allow_pragma, 3140), (sym_test_pragma, 7490), (sym_once_pragma, 7490),
     (sym_must_call_pragma, 7490), (sym_export_pragma, 7490), (sym_pou_pragma, 7194),
     (sym_direct_variable, 7675), (sym_deref_expression, 2373), (sym_variable, 7599),
     (sym_var_access, 2373), (sym_in_out_decls, 3160), (sym_var_decls, 3160),
     (sym_retain_var_decls, 3160), (sym_temp_var_decls, 3160), (sym_external_var_decls, 3160),
     (sym_global_var_decls, 2947), (sym_loc_partly_var_decl, 3160), (sym__fb_variables, 2343),
     (sym_fb_input_decls, 3160), (sym_fb_output_decls, 3160), (sym_no_retain_var_decls, 3160),
     (sym_fb_body, 9898), (sym_method_decl, 2549), (sym_prog_access_decls, 3043), (sym_SFC, 7970),
     (sym_SFC_network, 7612), (sym_initial_step, 7439), (sym_config_init, 3047),
     (sym_variable_access, 7530), (sym_func_call, 2961), (sym_stmt_list, 7970), (sym__stmt, 2024),
     (sym_assign, 3150), (sym_if_stmt, 3150), (sym_case_stmt, 3150), (sym_for_stmt, 3150),
     (sym_while_stmt, 3150), (sym_repeat_stmt, 3150), (sym_raise_stmt, 3150), (sym_try_stmt, 3150),
     (sym_ERR_clause_outside_try, 3150), (sym_begin_path_expression, 2943), (sym_invocation, 2934),
     (sym_any_invocation, 2935), (sym_this_invocation, 2641), (sym_super_invocation, 2641),
     (sym_super_body_invocation, 2935), (sym_path_expression, 2627), (sym_field_expression, 2373),
     (sym_index_expression, 2373), (sym_ladder_diagram, 7970), (sym_fb_diagram, 7970),
     (aux_sym_ERR_fb_variables_after_method_repeat1, 2343), (aux_sym_func_decl_repeat1, 7194),
     (aux_sym_fb_decl_repeat3, 2549), (aux_sym_SFC_repeat1, 7612),
     (aux_sym_stmt_list_repeat1, 2024), (aux_sym_ladder_diagram_repeat1, 8009),
     (aux_sym_fb_diagram_repeat1, 8013), (sym_identifier, 298),
     (aux_sym_ERR_unexpected_this_in_path_token1, 304),
     (aux_sym_ERR_unexpected_super_in_path_token1, 306), (sym_line_comment, 3),
     (anon_sym_LBRACE, 308), (aux_sym_test_pragma_token1, 9), (aux_sym_once_pragma_token1, 11),
     (aux_sym_must_call_pragma_token1, 13), (aux_sym_export_pragma_token1, 15),
     (anon_sym_SEMI, 310), (anon_sym_PERCENT, 312), (aux_sym_input_decls_token1, 314),
     (aux_sym_output_decls_token1, 316), (aux_sym_in_out_decls_token1, 318),
     (aux_sym_var_decls_token1, 320), (aux_sym_temp_var_decls_token1, 322),
     (aux_sym_external_var_decls_token1, 324), (aux_sym_global_var_decls_token1, 326),
     (aux_sym_fb_decl_token4, 1852), (aux_sym_method_decl_token1, 330),
     (aux_sym_prog_access_decls_token1, 332), (aux_sym_initial_step_token1, 334),
     (aux_sym_config_init_token1, 336), (aux_sym__stmt_token1, 340), (aux_sym__stmt_token2, 340),
     (aux_sym__stmt_token3, 340), (aux_sym_if_stmt_token1, 342), (aux_sym_case_stmt_token1, 344),
     (aux_sym_for_stmt_token1, 346), (aux_sym_while_stmt_token1, 348),
     (aux_sym_repeat_stmt_token1, 350), (aux_sym_raise_stmt_token1, 352),
     (aux_sym_try_stmt_token1, 354), (aux_sym_try_stmt_token2, 356),
     (aux_sym_catch_clause_token1, 356), (aux_sym_finally_clause_token1, 356), (sym_ld_rung, 358),
     (sym_fbd_network, 360), (sym_c_style_comment, 3), (sym_pascal_style_comment, 3),
     (sym_pragma, 3)]"

lemma ts_parse_row_761_scan: "row_scan tokens_63_2 0 ts_parse_row_761 = Some (Suc (Suc (Suc (Suc 0))))"
  unfolding ts_parse_row_761_def by simp

text \<open>Lines 141315 to 141427.\<close>

definition ts_parse_row_762 :: parse_row where
  "ts_parse_row_762 =
    [(sym_ERR_assign_func_call, 7530), (sym_ERR_unexpected_this_in_path, 2372),
     (sym_ERR_unexpected_super_in_path, 2372), (sym_ERR_fb_variables_after_method, 1748),
     (sym_ERR_var_access_not_allowed, 3160), (sym_ERR_var_config_not_allowed, 3160),
     (sym_ERR_var_global_not_allowed, 3160), (sym_ERR_method_decl_in_body, 3150),
     (sym_extern_pragma, 7490), (sym_wasm_pragma, 3150), (sym_warn_pragma, 7490),
     (sym_allow_pragma, 3140), (sym_test_pragma, 7490), (sym_once_pragma, 7490),
     (sym_must_call_pragma, 7490), (sym_export_pragma, 7490), (sym_pou_pragma, 7194),
     (sym_direct_variable, 7675), (sym_deref_expression, 2373), (sym_variable, 7599),
     (sym_var_access, 2373), (sym_in_out_decls, 3160), (sym_var_decls, 3160),
     (sym_retain_var_decls, 3160), (sym_temp_var_decls, 3160), (sym_external_var_decls, 3160),
     (sym_global_var_decls, 2947), (sym_loc_partly_var_decl, 3160), (sym__fb_variables, 2343),
     (sym_fb_input_decls, 3160), (sym_fb_output_decls, 3160), (sym_no_retain_var_decls, 3160),
     (sym_fb_body, 10102), (sym_method_decl, 2549), (sym_prog_access_decls, 3043), (sym_SFC, 7970),
     (sym_SFC_network, 7612), (sym_initial_step, 7439), (sym_config_init, 3047),
     (sym_variable_access, 7530), (sym_func_call, 2961), (sym_stmt_list, 7970), (sym__stmt, 2024),
     (sym_assign, 3150), (sym_if_stmt, 3150), (sym_case_stmt, 3150), (sym_for_stmt, 3150),
     (sym_while_stmt, 3150), (sym_repeat_stmt, 3150), (sym_raise_stmt, 3150), (sym_try_stmt, 3150),
     (sym_ERR_clause_outside_try, 3150), (sym_begin_path_expression, 2943), (sym_invocation, 2934),
     (sym_any_invocation, 2935), (sym_this_invocation, 2641), (sym_super_invocation, 2641),
     (sym_super_body_invocation, 2935), (sym_path_expression, 2627), (sym_field_expression, 2373),
     (sym_index_expression, 2373), (sym_ladder_diagram, 7970), (sym_fb_diagram, 7970),
     (aux_sym_ERR_fb_variables_after_method_repeat1, 2343), (aux_sym_func_decl_repeat1, 7194),
     (aux_sym_fb_decl_repeat3, 2549), (aux_sym_SFC_repeat1, 7612),
     (aux_sym_stmt_list_repeat1, 2024), (aux_sym_ladder_diagram_repeat1, 8009),
     (aux_sym_fb_diagram_repeat1, 8013), (sym_identifier, 298),
     (aux_sym_ERR_unexpected_this_in_path_token1, 304),
     (aux_sym_ERR_unexpected_super_in_path_token1, 306), (sym_line_comment, 3),
     (anon_sym_LBRACE, 308), (aux_sym_test_pragma_token1, 9), (aux_sym_once_pragma_token1, 11),
     (aux_sym_must_call_pragma_token1, 13), (aux_sym_export_pragma_token1, 15),
     (anon_sym_SEMI, 310), (anon_sym_PERCENT, 312), (aux_sym_input_decls_token1, 314),
     (aux_sym_output_decls_token1, 316), (aux_sym_in_out_decls_token1, 318),
     (aux_sym_var_decls_token1, 320), (aux_sym_temp_var_decls_token1, 322),
     (aux_sym_external_var_decls_token1, 324), (aux_sym_global_var_decls_token1, 326),
     (aux_sym_fb_decl_token4, 1854), (aux_sym_method_decl_token1, 330),
     (aux_sym_prog_access_decls_token1, 332), (aux_sym_initial_step_token1, 334),
     (aux_sym_config_init_token1, 336), (aux_sym__stmt_token1, 340), (aux_sym__stmt_token2, 340),
     (aux_sym__stmt_token3, 340), (aux_sym_if_stmt_token1, 342), (aux_sym_case_stmt_token1, 344),
     (aux_sym_for_stmt_token1, 346), (aux_sym_while_stmt_token1, 348),
     (aux_sym_repeat_stmt_token1, 350), (aux_sym_raise_stmt_token1, 352),
     (aux_sym_try_stmt_token1, 354), (aux_sym_try_stmt_token2, 356),
     (aux_sym_catch_clause_token1, 356), (aux_sym_finally_clause_token1, 356), (sym_ld_rung, 358),
     (sym_fbd_network, 360), (sym_c_style_comment, 3), (sym_pascal_style_comment, 3),
     (sym_pragma, 3)]"

lemma ts_parse_row_762_scan: "row_scan tokens_63_2 0 ts_parse_row_762 = Some (Suc (Suc (Suc (Suc 0))))"
  unfolding ts_parse_row_762_def by simp

text \<open>Lines 141428 to 141540.\<close>

definition ts_parse_row_763 :: parse_row where
  "ts_parse_row_763 =
    [(sym_ERR_assign_func_call, 7530), (sym_ERR_unexpected_this_in_path, 2372),
     (sym_ERR_unexpected_super_in_path, 2372), (sym_ERR_fb_variables_after_method, 1749),
     (sym_ERR_var_access_not_allowed, 3160), (sym_ERR_var_config_not_allowed, 3160),
     (sym_ERR_var_global_not_allowed, 3160), (sym_ERR_method_decl_in_body, 3150),
     (sym_extern_pragma, 7490), (sym_wasm_pragma, 3150), (sym_warn_pragma, 7490),
     (sym_allow_pragma, 3140), (sym_test_pragma, 7490), (sym_once_pragma, 7490),
     (sym_must_call_pragma, 7490), (sym_export_pragma, 7490), (sym_pou_pragma, 7194),
     (sym_direct_variable, 7675), (sym_deref_expression, 2373), (sym_variable, 7599),
     (sym_var_access, 2373), (sym_in_out_decls, 3160), (sym_var_decls, 3160),
     (sym_retain_var_decls, 3160), (sym_temp_var_decls, 3160), (sym_external_var_decls, 3160),
     (sym_global_var_decls, 2947), (sym_loc_partly_var_decl, 3160), (sym__fb_variables, 2343),
     (sym_fb_input_decls, 3160), (sym_fb_output_decls, 3160), (sym_no_retain_var_decls, 3160),
     (sym_fb_body, 10133), (sym_method_decl, 2549), (sym_prog_access_decls, 3043), (sym_SFC, 7970),
     (sym_SFC_network, 7612), (sym_initial_step, 7439), (sym_config_init, 3047),
     (sym_variable_access, 7530), (sym_func_call, 2961), (sym_stmt_list, 7970), (sym__stmt, 2024),
     (sym_assign, 3150), (sym_if_stmt, 3150), (sym_case_stmt, 3150), (sym_for_stmt, 3150),
     (sym_while_stmt, 3150), (sym_repeat_stmt, 3150), (sym_raise_stmt, 3150), (sym_try_stmt, 3150),
     (sym_ERR_clause_outside_try, 3150), (sym_begin_path_expression, 2943), (sym_invocation, 2934),
     (sym_any_invocation, 2935), (sym_this_invocation, 2641), (sym_super_invocation, 2641),
     (sym_super_body_invocation, 2935), (sym_path_expression, 2627), (sym_field_expression, 2373),
     (sym_index_expression, 2373), (sym_ladder_diagram, 7970), (sym_fb_diagram, 7970),
     (aux_sym_ERR_fb_variables_after_method_repeat1, 2343), (aux_sym_func_decl_repeat1, 7194),
     (aux_sym_fb_decl_repeat3, 2549), (aux_sym_SFC_repeat1, 7612),
     (aux_sym_stmt_list_repeat1, 2024), (aux_sym_ladder_diagram_repeat1, 8009),
     (aux_sym_fb_diagram_repeat1, 8013), (sym_identifier, 298),
     (aux_sym_ERR_unexpected_this_in_path_token1, 304),
     (aux_sym_ERR_unexpected_super_in_path_token1, 306), (sym_line_comment, 3),
     (anon_sym_LBRACE, 308), (aux_sym_test_pragma_token1, 9), (aux_sym_once_pragma_token1, 11),
     (aux_sym_must_call_pragma_token1, 13), (aux_sym_export_pragma_token1, 15),
     (anon_sym_SEMI, 310), (anon_sym_PERCENT, 312), (aux_sym_input_decls_token1, 314),
     (aux_sym_output_decls_token1, 316), (aux_sym_in_out_decls_token1, 318),
     (aux_sym_var_decls_token1, 320), (aux_sym_temp_var_decls_token1, 322),
     (aux_sym_external_var_decls_token1, 324), (aux_sym_global_var_decls_token1, 326),
     (aux_sym_fb_decl_token4, 1856), (aux_sym_method_decl_token1, 330),
     (aux_sym_prog_access_decls_token1, 332), (aux_sym_initial_step_token1, 334),
     (aux_sym_config_init_token1, 336), (aux_sym__stmt_token1, 340), (aux_sym__stmt_token2, 340),
     (aux_sym__stmt_token3, 340), (aux_sym_if_stmt_token1, 342), (aux_sym_case_stmt_token1, 344),
     (aux_sym_for_stmt_token1, 346), (aux_sym_while_stmt_token1, 348),
     (aux_sym_repeat_stmt_token1, 350), (aux_sym_raise_stmt_token1, 352),
     (aux_sym_try_stmt_token1, 354), (aux_sym_try_stmt_token2, 356),
     (aux_sym_catch_clause_token1, 356), (aux_sym_finally_clause_token1, 356), (sym_ld_rung, 358),
     (sym_fbd_network, 360), (sym_c_style_comment, 3), (sym_pascal_style_comment, 3),
     (sym_pragma, 3)]"

lemma ts_parse_row_763_scan: "row_scan tokens_63_2 0 ts_parse_row_763 = Some (Suc (Suc (Suc (Suc 0))))"
  unfolding ts_parse_row_763_def by simp

text \<open>Lines 141541 to 141653.\<close>

definition ts_parse_row_764 :: parse_row where
  "ts_parse_row_764 =
    [(sym_ERR_assign_func_call, 7530), (sym_ERR_unexpected_this_in_path, 2372),
     (sym_ERR_unexpected_super_in_path, 2372), (sym_ERR_fb_variables_after_method, 1750),
     (sym_ERR_var_access_not_allowed, 3160), (sym_ERR_var_config_not_allowed, 3160),
     (sym_ERR_var_global_not_allowed, 3160), (sym_ERR_method_decl_in_body, 3150),
     (sym_extern_pragma, 7490), (sym_wasm_pragma, 3150), (sym_warn_pragma, 7490),
     (sym_allow_pragma, 3140), (sym_test_pragma, 7490), (sym_once_pragma, 7490),
     (sym_must_call_pragma, 7490), (sym_export_pragma, 7490), (sym_pou_pragma, 7194),
     (sym_direct_variable, 7675), (sym_deref_expression, 2373), (sym_variable, 7599),
     (sym_var_access, 2373), (sym_in_out_decls, 3160), (sym_var_decls, 3160),
     (sym_retain_var_decls, 3160), (sym_temp_var_decls, 3160), (sym_external_var_decls, 3160),
     (sym_global_var_decls, 2947), (sym_loc_partly_var_decl, 3160), (sym__fb_variables, 2347),
     (sym_fb_input_decls, 3160), (sym_fb_output_decls, 3160), (sym_no_retain_var_decls, 3160),
     (sym_fb_body, 10183), (sym_method_decl, 816), (sym_prog_access_decls, 3043), (sym_SFC, 7970),
     (sym_SFC_network, 7612), (sym_initial_step, 7439), (sym_config_init, 3047),
     (sym_variable_access, 7530), (sym_func_call, 2961), (sym_stmt_list, 7970), (sym__stmt, 2024),
     (sym_assign, 3150), (sym_if_stmt, 3150), (sym_case_stmt, 3150), (sym_for_stmt, 3150),
     (sym_while_stmt, 3150), (sym_repeat_stmt, 3150), (sym_raise_stmt, 3150), (sym_try_stmt, 3150),
     (sym_ERR_clause_outside_try, 3150), (sym_begin_path_expression, 2943), (sym_invocation, 2934),
     (sym_any_invocation, 2935), (sym_this_invocation, 2641), (sym_super_invocation, 2641),
     (sym_super_body_invocation, 2935), (sym_path_expression, 2627), (sym_field_expression, 2373),
     (sym_index_expression, 2373), (sym_ladder_diagram, 7970), (sym_fb_diagram, 7970),
     (aux_sym_ERR_fb_variables_after_method_repeat1, 2347), (aux_sym_func_decl_repeat1, 7194),
     (aux_sym_fb_decl_repeat3, 816), (aux_sym_SFC_repeat1, 7612), (aux_sym_stmt_list_repeat1, 2024),
     (aux_sym_ladder_diagram_repeat1, 8009), (aux_sym_fb_diagram_repeat1, 8013),
     (sym_identifier, 298), (aux_sym_ERR_unexpected_this_in_path_token1, 304),
     (aux_sym_ERR_unexpected_super_in_path_token1, 306), (sym_line_comment, 3),
     (anon_sym_LBRACE, 308), (aux_sym_test_pragma_token1, 9), (aux_sym_once_pragma_token1, 11),
     (aux_sym_must_call_pragma_token1, 13), (aux_sym_export_pragma_token1, 15),
     (anon_sym_SEMI, 310), (anon_sym_PERCENT, 312), (aux_sym_input_decls_token1, 314),
     (aux_sym_output_decls_token1, 316), (aux_sym_in_out_decls_token1, 318),
     (aux_sym_var_decls_token1, 320), (aux_sym_temp_var_decls_token1, 322),
     (aux_sym_external_var_decls_token1, 324), (aux_sym_global_var_decls_token1, 326),
     (aux_sym_fb_decl_token4, 1858), (aux_sym_method_decl_token1, 330),
     (aux_sym_prog_access_decls_token1, 332), (aux_sym_initial_step_token1, 334),
     (aux_sym_config_init_token1, 336), (aux_sym__stmt_token1, 340), (aux_sym__stmt_token2, 340),
     (aux_sym__stmt_token3, 340), (aux_sym_if_stmt_token1, 342), (aux_sym_case_stmt_token1, 344),
     (aux_sym_for_stmt_token1, 346), (aux_sym_while_stmt_token1, 348),
     (aux_sym_repeat_stmt_token1, 350), (aux_sym_raise_stmt_token1, 352),
     (aux_sym_try_stmt_token1, 354), (aux_sym_try_stmt_token2, 356),
     (aux_sym_catch_clause_token1, 356), (aux_sym_finally_clause_token1, 356), (sym_ld_rung, 358),
     (sym_fbd_network, 360), (sym_c_style_comment, 3), (sym_pascal_style_comment, 3),
     (sym_pragma, 3)]"

lemma ts_parse_row_764_scan: "row_scan tokens_63_2 0 ts_parse_row_764 = Some (Suc (Suc (Suc (Suc 0))))"
  unfolding ts_parse_row_764_def by simp

text \<open>Lines 141654 to 141766.\<close>

definition ts_parse_row_765 :: parse_row where
  "ts_parse_row_765 =
    [(sym_ERR_assign_func_call, 7530), (sym_ERR_unexpected_this_in_path, 2372),
     (sym_ERR_unexpected_super_in_path, 2372), (sym_ERR_fb_variables_after_method, 1752),
     (sym_ERR_var_access_not_allowed, 3160), (sym_ERR_var_config_not_allowed, 3160),
     (sym_ERR_var_global_not_allowed, 3160), (sym_ERR_method_decl_in_body, 3150),
     (sym_extern_pragma, 7490), (sym_wasm_pragma, 3150), (sym_warn_pragma, 7490),
     (sym_allow_pragma, 3140), (sym_test_pragma, 7490), (sym_once_pragma, 7490),
     (sym_must_call_pragma, 7490), (sym_export_pragma, 7490), (sym_pou_pragma, 7194),
     (sym_direct_variable, 7675), (sym_deref_expression, 2373), (sym_variable, 7599),
     (sym_var_access, 2373), (sym_in_out_decls, 3160), (sym_var_decls, 3160),
     (sym_retain_var_decls, 3160), (sym_temp_var_decls, 3160), (sym_external_var_decls, 3160),
     (sym_global_var_decls, 2947), (sym_loc_partly_var_decl, 3160), (sym__fb_variables, 2343),
     (sym_fb_input_decls, 3160), (sym_fb_output_decls, 3160), (sym_no_retain_var_decls, 3160),
     (sym_fb_body, 10259), (sym_method_decl, 2549), (sym_prog_access_decls, 3043), (sym_SFC, 7970),
     (sym_SFC_network, 7612), (sym_initial_step, 7439), (sym_config_init, 3047),
     (sym_variable_access, 7530), (sym_func_call, 2961), (sym_stmt_list, 7970), (sym__stmt, 2024),
     (sym_assign, 3150), (sym_if_stmt, 3150), (sym_case_stmt, 3150), (sym_for_stmt, 3150),
     (sym_while_stmt, 3150), (sym_repeat_stmt, 3150), (sym_raise_stmt, 3150), (sym_try_stmt, 3150),
     (sym_ERR_clause_outside_try, 3150), (sym_begin_path_expression, 2943), (sym_invocation, 2934),
     (sym_any_invocation, 2935), (sym_this_invocation, 2641), (sym_super_invocation, 2641),
     (sym_super_body_invocation, 2935), (sym_path_expression, 2627), (sym_field_expression, 2373),
     (sym_index_expression, 2373), (sym_ladder_diagram, 7970), (sym_fb_diagram, 7970),
     (aux_sym_ERR_fb_variables_after_method_repeat1, 2343), (aux_sym_func_decl_repeat1, 7194),
     (aux_sym_fb_decl_repeat3, 2549), (aux_sym_SFC_repeat1, 7612),
     (aux_sym_stmt_list_repeat1, 2024), (aux_sym_ladder_diagram_repeat1, 8009),
     (aux_sym_fb_diagram_repeat1, 8013), (sym_identifier, 298),
     (aux_sym_ERR_unexpected_this_in_path_token1, 304),
     (aux_sym_ERR_unexpected_super_in_path_token1, 306), (sym_line_comment, 3),
     (anon_sym_LBRACE, 308), (aux_sym_test_pragma_token1, 9), (aux_sym_once_pragma_token1, 11),
     (aux_sym_must_call_pragma_token1, 13), (aux_sym_export_pragma_token1, 15),
     (anon_sym_SEMI, 310), (anon_sym_PERCENT, 312), (aux_sym_input_decls_token1, 314),
     (aux_sym_output_decls_token1, 316), (aux_sym_in_out_decls_token1, 318),
     (aux_sym_var_decls_token1, 320), (aux_sym_temp_var_decls_token1, 322),
     (aux_sym_external_var_decls_token1, 324), (aux_sym_global_var_decls_token1, 326),
     (aux_sym_fb_decl_token4, 1860), (aux_sym_method_decl_token1, 330),
     (aux_sym_prog_access_decls_token1, 332), (aux_sym_initial_step_token1, 334),
     (aux_sym_config_init_token1, 336), (aux_sym__stmt_token1, 340), (aux_sym__stmt_token2, 340),
     (aux_sym__stmt_token3, 340), (aux_sym_if_stmt_token1, 342), (aux_sym_case_stmt_token1, 344),
     (aux_sym_for_stmt_token1, 346), (aux_sym_while_stmt_token1, 348),
     (aux_sym_repeat_stmt_token1, 350), (aux_sym_raise_stmt_token1, 352),
     (aux_sym_try_stmt_token1, 354), (aux_sym_try_stmt_token2, 356),
     (aux_sym_catch_clause_token1, 356), (aux_sym_finally_clause_token1, 356), (sym_ld_rung, 358),
     (sym_fbd_network, 360), (sym_c_style_comment, 3), (sym_pascal_style_comment, 3),
     (sym_pragma, 3)]"

lemma ts_parse_row_765_scan: "row_scan tokens_63_2 0 ts_parse_row_765 = Some (Suc (Suc (Suc (Suc 0))))"
  unfolding ts_parse_row_765_def by simp

text \<open>Lines 141767 to 141879.\<close>

definition ts_parse_row_766 :: parse_row where
  "ts_parse_row_766 =
    [(sym_ERR_assign_func_call, 7530), (sym_ERR_unexpected_this_in_path, 2372),
     (sym_ERR_unexpected_super_in_path, 2372), (sym_ERR_fb_variables_after_method, 1753),
     (sym_ERR_var_access_not_allowed, 3160), (sym_ERR_var_config_not_allowed, 3160),
     (sym_ERR_var_global_not_allowed, 3160), (sym_ERR_method_decl_in_body, 3150),
     (sym_extern_pragma, 7490), (sym_wasm_pragma, 3150), (sym_warn_pragma, 7490),
     (sym_allow_pragma, 3140), (sym_test_pragma, 7490), (sym_once_pragma, 7490),
     (sym_must_call_pragma, 7490), (sym_export_pragma, 7490), (sym_pou_pragma, 7194),
     (sym_direct_variable, 7675), (sym_deref_expression, 2373), (sym_variable, 7599),
     (sym_var_access, 2373), (sym_in_out_decls, 3160), (sym_var_decls, 3160),
     (sym_retain_var_decls, 3160), (sym_temp_var_decls, 3160), (sym_external_var_decls, 3160),
     (sym_global_var_decls, 2947), (sym_loc_partly_var_decl, 3160), (sym__fb_variables, 2343),
     (sym_fb_input_decls, 3160), (sym_fb_output_decls, 3160), (sym_no_retain_var_decls, 3160),
     (sym_fb_body, 10273), (sym_method_decl, 2549), (sym_prog_access_decls, 3043), (sym_SFC, 7970),
     (sym_SFC_network, 7612), (sym_initial_step, 7439), (sym_config_init, 3047),
     (sym_variable_access, 7530), (sym_func_call, 2961), (sym_stmt_list, 7970), (sym__stmt, 2024),
     (sym_assign, 3150), (sym_if_stmt, 3150), (sym_case_stmt, 3150), (sym_for_stmt, 3150),
     (sym_while_stmt, 3150), (sym_repeat_stmt, 3150), (sym_raise_stmt, 3150), (sym_try_stmt, 3150),
     (sym_ERR_clause_outside_try, 3150), (sym_begin_path_expression, 2943), (sym_invocation, 2934),
     (sym_any_invocation, 2935), (sym_this_invocation, 2641), (sym_super_invocation, 2641),
     (sym_super_body_invocation, 2935), (sym_path_expression, 2627), (sym_field_expression, 2373),
     (sym_index_expression, 2373), (sym_ladder_diagram, 7970), (sym_fb_diagram, 7970),
     (aux_sym_ERR_fb_variables_after_method_repeat1, 2343), (aux_sym_func_decl_repeat1, 7194),
     (aux_sym_fb_decl_repeat3, 2549), (aux_sym_SFC_repeat1, 7612),
     (aux_sym_stmt_list_repeat1, 2024), (aux_sym_ladder_diagram_repeat1, 8009),
     (aux_sym_fb_diagram_repeat1, 8013), (sym_identifier, 298),
     (aux_sym_ERR_unexpected_this_in_path_token1, 304),
     (aux_sym_ERR_unexpected_super_in_path_token1, 306), (sym_line_comment, 3),
     (anon_sym_LBRACE, 308), (aux_sym_test_pragma_token1, 9), (aux_sym_once_pragma_token1, 11),
     (aux_sym_must_call_pragma_token1, 13), (aux_sym_export_pragma_token1, 15),
     (anon_sym_SEMI, 310), (anon_sym_PERCENT, 312), (aux_sym_input_decls_token1, 314),
     (aux_sym_output_decls_token1, 316), (aux_sym_in_out_decls_token1, 318),
     (aux_sym_var_decls_token1, 320), (aux_sym_temp_var_decls_token1, 322),
     (aux_sym_external_var_decls_token1, 324), (aux_sym_global_var_decls_token1, 326),
     (aux_sym_fb_decl_token4, 1862), (aux_sym_method_decl_token1, 330),
     (aux_sym_prog_access_decls_token1, 332), (aux_sym_initial_step_token1, 334),
     (aux_sym_config_init_token1, 336), (aux_sym__stmt_token1, 340), (aux_sym__stmt_token2, 340),
     (aux_sym__stmt_token3, 340), (aux_sym_if_stmt_token1, 342), (aux_sym_case_stmt_token1, 344),
     (aux_sym_for_stmt_token1, 346), (aux_sym_while_stmt_token1, 348),
     (aux_sym_repeat_stmt_token1, 350), (aux_sym_raise_stmt_token1, 352),
     (aux_sym_try_stmt_token1, 354), (aux_sym_try_stmt_token2, 356),
     (aux_sym_catch_clause_token1, 356), (aux_sym_finally_clause_token1, 356), (sym_ld_rung, 358),
     (sym_fbd_network, 360), (sym_c_style_comment, 3), (sym_pascal_style_comment, 3),
     (sym_pragma, 3)]"

lemma ts_parse_row_766_scan: "row_scan tokens_63_2 0 ts_parse_row_766 = Some (Suc (Suc (Suc (Suc 0))))"
  unfolding ts_parse_row_766_def by simp

text \<open>Lines 141880 to 141992.\<close>

definition ts_parse_row_767 :: parse_row where
  "ts_parse_row_767 =
    [(sym_ERR_assign_func_call, 7530), (sym_ERR_unexpected_this_in_path, 2372),
     (sym_ERR_unexpected_super_in_path, 2372), (sym_ERR_fb_variables_after_method, 1754),
     (sym_ERR_var_access_not_allowed, 3160), (sym_ERR_var_config_not_allowed, 3160),
     (sym_ERR_var_global_not_allowed, 3160), (sym_ERR_method_decl_in_body, 3150),
     (sym_extern_pragma, 7490), (sym_wasm_pragma, 3150), (sym_warn_pragma, 7490),
     (sym_allow_pragma, 3140), (sym_test_pragma, 7490), (sym_once_pragma, 7490),
     (sym_must_call_pragma, 7490), (sym_export_pragma, 7490), (sym_pou_pragma, 7194),
     (sym_direct_variable, 7675), (sym_deref_expression, 2373), (sym_variable, 7599),
     (sym_var_access, 2373), (sym_in_out_decls, 3160), (sym_var_decls, 3160),
     (sym_retain_var_decls, 3160), (sym_temp_var_decls, 3160), (sym_external_var_decls, 3160),
     (sym_global_var_decls, 2947), (sym_loc_partly_var_decl, 3160), (sym__fb_variables, 2347),
     (sym_fb_input_decls, 3160), (sym_fb_output_decls, 3160), (sym_no_retain_var_decls, 3160),
     (sym_fb_body, 10280), (sym_method_decl, 817), (sym_prog_access_decls, 3043), (sym_SFC, 7970),
     (sym_SFC_network, 7612), (sym_initial_step, 7439), (sym_config_init, 3047),
     (sym_variable_access, 7530), (sym_func_call, 2961), (sym_stmt_list, 7970), (sym__stmt, 2024),
     (sym_assign, 3150), (sym_if_stmt, 3150), (sym_case_stmt, 3150), (sym_for_stmt, 3150),
     (sym_while_stmt, 3150), (sym_repeat_stmt, 3150), (sym_raise_stmt, 3150), (sym_try_stmt, 3150),
     (sym_ERR_clause_outside_try, 3150), (sym_begin_path_expression, 2943), (sym_invocation, 2934),
     (sym_any_invocation, 2935), (sym_this_invocation, 2641), (sym_super_invocation, 2641),
     (sym_super_body_invocation, 2935), (sym_path_expression, 2627), (sym_field_expression, 2373),
     (sym_index_expression, 2373), (sym_ladder_diagram, 7970), (sym_fb_diagram, 7970),
     (aux_sym_ERR_fb_variables_after_method_repeat1, 2347), (aux_sym_func_decl_repeat1, 7194),
     (aux_sym_fb_decl_repeat3, 817), (aux_sym_SFC_repeat1, 7612), (aux_sym_stmt_list_repeat1, 2024),
     (aux_sym_ladder_diagram_repeat1, 8009), (aux_sym_fb_diagram_repeat1, 8013),
     (sym_identifier, 298), (aux_sym_ERR_unexpected_this_in_path_token1, 304),
     (aux_sym_ERR_unexpected_super_in_path_token1, 306), (sym_line_comment, 3),
     (anon_sym_LBRACE, 308), (aux_sym_test_pragma_token1, 9), (aux_sym_once_pragma_token1, 11),
     (aux_sym_must_call_pragma_token1, 13), (aux_sym_export_pragma_token1, 15),
     (anon_sym_SEMI, 310), (anon_sym_PERCENT, 312), (aux_sym_input_decls_token1, 314),
     (aux_sym_output_decls_token1, 316), (aux_sym_in_out_decls_token1, 318),
     (aux_sym_var_decls_token1, 320), (aux_sym_temp_var_decls_token1, 322),
     (aux_sym_external_var_decls_token1, 324), (aux_sym_global_var_decls_token1, 326),
     (aux_sym_fb_decl_token4, 1864), (aux_sym_method_decl_token1, 330),
     (aux_sym_prog_access_decls_token1, 332), (aux_sym_initial_step_token1, 334),
     (aux_sym_config_init_token1, 336), (aux_sym__stmt_token1, 340), (aux_sym__stmt_token2, 340),
     (aux_sym__stmt_token3, 340), (aux_sym_if_stmt_token1, 342), (aux_sym_case_stmt_token1, 344),
     (aux_sym_for_stmt_token1, 346), (aux_sym_while_stmt_token1, 348),
     (aux_sym_repeat_stmt_token1, 350), (aux_sym_raise_stmt_token1, 352),
     (aux_sym_try_stmt_token1, 354), (aux_sym_try_stmt_token2, 356),
     (aux_sym_catch_clause_token1, 356), (aux_sym_finally_clause_token1, 356), (sym_ld_rung, 358),
     (sym_fbd_network, 360), (sym_c_style_comment, 3), (sym_pascal_style_comment, 3),
     (sym_pragma, 3)]"

lemma ts_parse_row_767_scan: "row_scan tokens_63_2 0 ts_parse_row_767 = Some (Suc (Suc (Suc (Suc 0))))"
  unfolding ts_parse_row_767_def by simp

text \<open>Lines 141993 to 142105.\<close>

definition ts_parse_row_768 :: parse_row where
  "ts_parse_row_768 =
    [(sym_ERR_assign_func_call, 7530), (sym_ERR_unexpected_this_in_path, 2372),
     (sym_ERR_unexpected_super_in_path, 2372), (sym_ERR_fb_variables_after_method, 1756),
     (sym_ERR_var_access_not_allowed, 3160), (sym_ERR_var_config_not_allowed, 3160),
     (sym_ERR_var_global_not_allowed, 3160), (sym_ERR_method_decl_in_body, 3150),
     (sym_extern_pragma, 7490), (sym_wasm_pragma, 3150), (sym_warn_pragma, 7490),
     (sym_allow_pragma, 3140), (sym_test_pragma, 7490), (sym_once_pragma, 7490),
     (sym_must_call_pragma, 7490), (sym_export_pragma, 7490), (sym_pou_pragma, 7194),
     (sym_direct_variable, 7675), (sym_deref_expression, 2373), (sym_variable, 7599),
     (sym_var_access, 2373), (sym_in_out_decls, 3160), (sym_var_decls, 3160),
     (sym_retain_var_decls, 3160), (sym_temp_var_decls, 3160), (sym_external_var_decls, 3160),
     (sym_global_var_decls, 2947), (sym_loc_partly_var_decl, 3160), (sym__fb_variables, 2343),
     (sym_fb_input_decls, 3160), (sym_fb_output_decls, 3160), (sym_no_retain_var_decls, 3160),
     (sym_fb_body, 10286), (sym_method_decl, 2549), (sym_prog_access_decls, 3043), (sym_SFC, 7970),
     (sym_SFC_network, 7612), (sym_initial_step, 7439), (sym_config_init, 3047),
     (sym_variable_access, 7530), (sym_func_call, 2961), (sym_stmt_list, 7970), (sym__stmt, 2024),
     (sym_assign, 3150), (sym_if_stmt, 3150), (sym_case_stmt, 3150), (sym_for_stmt, 3150),
     (sym_while_stmt, 3150), (sym_repeat_stmt, 3150), (sym_raise_stmt, 3150), (sym_try_stmt, 3150),
     (sym_ERR_clause_outside_try, 3150), (sym_begin_path_expression, 2943), (sym_invocation, 2934),
     (sym_any_invocation, 2935), (sym_this_invocation, 2641), (sym_super_invocation, 2641),
     (sym_super_body_invocation, 2935), (sym_path_expression, 2627), (sym_field_expression, 2373),
     (sym_index_expression, 2373), (sym_ladder_diagram, 7970), (sym_fb_diagram, 7970),
     (aux_sym_ERR_fb_variables_after_method_repeat1, 2343), (aux_sym_func_decl_repeat1, 7194),
     (aux_sym_fb_decl_repeat3, 2549), (aux_sym_SFC_repeat1, 7612),
     (aux_sym_stmt_list_repeat1, 2024), (aux_sym_ladder_diagram_repeat1, 8009),
     (aux_sym_fb_diagram_repeat1, 8013), (sym_identifier, 298),
     (aux_sym_ERR_unexpected_this_in_path_token1, 304),
     (aux_sym_ERR_unexpected_super_in_path_token1, 306), (sym_line_comment, 3),
     (anon_sym_LBRACE, 308), (aux_sym_test_pragma_token1, 9), (aux_sym_once_pragma_token1, 11),
     (aux_sym_must_call_pragma_token1, 13), (aux_sym_export_pragma_token1, 15),
     (anon_sym_SEMI, 310), (anon_sym_PERCENT, 312), (aux_sym_input_decls_token1, 314),
     (aux_sym_output_decls_token1, 316), (aux_sym_in_out_decls_token1, 318),
     (aux_sym_var_decls_token1, 320), (aux_sym_temp_var_decls_token1, 322),
     (aux_sym_external_var_decls_token1, 324), (aux_sym_global_var_decls_token1, 326),
     (aux_sym_fb_decl_token4, 1866), (aux_sym_method_decl_token1, 330),
     (aux_sym_prog_access_decls_token1, 332), (aux_sym_initial_step_token1, 334),
     (aux_sym_config_init_token1, 336), (aux_sym__stmt_token1, 340), (aux_sym__stmt_token2, 340),
     (aux_sym__stmt_token3, 340), (aux_sym_if_stmt_token1, 342), (aux_sym_case_stmt_token1, 344),
     (aux_sym_for_stmt_token1, 346), (aux_sym_while_stmt_token1, 348),
     (aux_sym_repeat_stmt_token1, 350), (aux_sym_raise_stmt_token1, 352),
     (aux_sym_try_stmt_token1, 354), (aux_sym_try_stmt_token2, 356),
     (aux_sym_catch_clause_token1, 356), (aux_sym_finally_clause_token1, 356), (sym_ld_rung, 358),
     (sym_fbd_network, 360), (sym_c_style_comment, 3), (sym_pascal_style_comment, 3),
     (sym_pragma, 3)]"

lemma ts_parse_row_768_scan: "row_scan tokens_63_2 0 ts_parse_row_768 = Some (Suc (Suc (Suc (Suc 0))))"
  unfolding ts_parse_row_768_def by simp

text \<open>Lines 142106 to 142218.\<close>

definition ts_parse_row_769 :: parse_row where
  "ts_parse_row_769 =
    [(sym_ERR_assign_func_call, 7530), (sym_ERR_unexpected_this_in_path, 2372),
     (sym_ERR_unexpected_super_in_path, 2372), (sym_ERR_fb_variables_after_method, 1757),
     (sym_ERR_var_access_not_allowed, 3160), (sym_ERR_var_config_not_allowed, 3160),
     (sym_ERR_var_global_not_allowed, 3160), (sym_ERR_method_decl_in_body, 3150),
     (sym_extern_pragma, 7490), (sym_wasm_pragma, 3150), (sym_warn_pragma, 7490),
     (sym_allow_pragma, 3140), (sym_test_pragma, 7490), (sym_once_pragma, 7490),
     (sym_must_call_pragma, 7490), (sym_export_pragma, 7490), (sym_pou_pragma, 7194),
     (sym_direct_variable, 7675), (sym_deref_expression, 2373), (sym_variable, 7599),
     (sym_var_access, 2373), (sym_in_out_decls, 3160), (sym_var_decls, 3160),
     (sym_retain_var_decls, 3160), (sym_temp_var_decls, 3160), (sym_external_var_decls, 3160),
     (sym_global_var_decls, 2947), (sym_loc_partly_var_decl, 3160), (sym__fb_variables, 2347),
     (sym_fb_input_decls, 3160), (sym_fb_output_decls, 3160), (sym_no_retain_var_decls, 3160),
     (sym_fb_body, 10291), (sym_method_decl, 818), (sym_prog_access_decls, 3043), (sym_SFC, 7970),
     (sym_SFC_network, 7612), (sym_initial_step, 7439), (sym_config_init, 3047),
     (sym_variable_access, 7530), (sym_func_call, 2961), (sym_stmt_list, 7970), (sym__stmt, 2024),
     (sym_assign, 3150), (sym_if_stmt, 3150), (sym_case_stmt, 3150), (sym_for_stmt, 3150),
     (sym_while_stmt, 3150), (sym_repeat_stmt, 3150), (sym_raise_stmt, 3150), (sym_try_stmt, 3150),
     (sym_ERR_clause_outside_try, 3150), (sym_begin_path_expression, 2943), (sym_invocation, 2934),
     (sym_any_invocation, 2935), (sym_this_invocation, 2641), (sym_super_invocation, 2641),
     (sym_super_body_invocation, 2935), (sym_path_expression, 2627), (sym_field_expression, 2373),
     (sym_index_expression, 2373), (sym_ladder_diagram, 7970), (sym_fb_diagram, 7970),
     (aux_sym_ERR_fb_variables_after_method_repeat1, 2347), (aux_sym_func_decl_repeat1, 7194),
     (aux_sym_fb_decl_repeat3, 818), (aux_sym_SFC_repeat1, 7612), (aux_sym_stmt_list_repeat1, 2024),
     (aux_sym_ladder_diagram_repeat1, 8009), (aux_sym_fb_diagram_repeat1, 8013),
     (sym_identifier, 298), (aux_sym_ERR_unexpected_this_in_path_token1, 304),
     (aux_sym_ERR_unexpected_super_in_path_token1, 306), (sym_line_comment, 3),
     (anon_sym_LBRACE, 308), (aux_sym_test_pragma_token1, 9), (aux_sym_once_pragma_token1, 11),
     (aux_sym_must_call_pragma_token1, 13), (aux_sym_export_pragma_token1, 15),
     (anon_sym_SEMI, 310), (anon_sym_PERCENT, 312), (aux_sym_input_decls_token1, 314),
     (aux_sym_output_decls_token1, 316), (aux_sym_in_out_decls_token1, 318),
     (aux_sym_var_decls_token1, 320), (aux_sym_temp_var_decls_token1, 322),
     (aux_sym_external_var_decls_token1, 324), (aux_sym_global_var_decls_token1, 326),
     (aux_sym_fb_decl_token4, 1868), (aux_sym_method_decl_token1, 330),
     (aux_sym_prog_access_decls_token1, 332), (aux_sym_initial_step_token1, 334),
     (aux_sym_config_init_token1, 336), (aux_sym__stmt_token1, 340), (aux_sym__stmt_token2, 340),
     (aux_sym__stmt_token3, 340), (aux_sym_if_stmt_token1, 342), (aux_sym_case_stmt_token1, 344),
     (aux_sym_for_stmt_token1, 346), (aux_sym_while_stmt_token1, 348),
     (aux_sym_repeat_stmt_token1, 350), (aux_sym_raise_stmt_token1, 352),
     (aux_sym_try_stmt_token1, 354), (aux_sym_try_stmt_token2, 356),
     (aux_sym_catch_clause_token1, 356), (aux_sym_finally_clause_token1, 356), (sym_ld_rung, 358),
     (sym_fbd_network, 360), (sym_c_style_comment, 3), (sym_pascal_style_comment, 3),
     (sym_pragma, 3)]"

lemma ts_parse_row_769_scan: "row_scan tokens_63_2 0 ts_parse_row_769 = Some (Suc (Suc (Suc (Suc 0))))"
  unfolding ts_parse_row_769_def by simp

text \<open>Lines 142219 to 142331.\<close>

definition ts_parse_row_770 :: parse_row where
  "ts_parse_row_770 =
    [(sym_ERR_assign_func_call, 7530), (sym_ERR_unexpected_this_in_path, 2372),
     (sym_ERR_unexpected_super_in_path, 2372), (sym_ERR_fb_variables_after_method, 1862),
     (sym_ERR_var_access_not_allowed, 3160), (sym_ERR_var_config_not_allowed, 3160),
     (sym_ERR_var_global_not_allowed, 3160), (sym_ERR_method_decl_in_body, 3150),
     (sym_extern_pragma, 7490), (sym_wasm_pragma, 3150), (sym_warn_pragma, 7490),
     (sym_allow_pragma, 3140), (sym_test_pragma, 7490), (sym_once_pragma, 7490),
     (sym_must_call_pragma, 7490), (sym_export_pragma, 7490), (sym_pou_pragma, 7194),
     (sym_direct_variable, 7675), (sym_deref_expression, 2373), (sym_variable, 7599),
     (sym_var_access, 2373), (sym_in_out_decls, 3160), (sym_var_decls, 3160),
     (sym_retain_var_decls, 3160), (sym_temp_var_decls, 3160), (sym_external_var_decls, 3160),
     (sym_global_var_decls, 2947), (sym_loc_partly_var_decl, 3160), (sym__fb_variables, 2343),
     (sym_fb_input_decls, 3160), (sym_fb_output_decls, 3160), (sym_no_retain_var_decls, 3160),
     (sym_fb_body, 8303), (sym_method_decl, 2549), (sym_prog_access_decls, 3043), (sym_SFC, 7970),
     (sym_SFC_network, 7612), (sym_initial_step, 7439), (sym_config_init, 3047),
     (sym_variable_access, 7530), (sym_func_call, 2961), (sym_stmt_list, 7970), (sym__stmt, 2024),
     (sym_assign, 3150), (sym_if_stmt, 3150), (sym_case_stmt, 3150), (sym_for_stmt, 3150),
     (sym_while_stmt, 3150), (sym_repeat_stmt, 3150), (sym_raise_stmt, 3150), (sym_try_stmt, 3150),
     (sym_ERR_clause_outside_try, 3150), (sym_begin_path_expression, 2943), (sym_invocation, 2934),
     (sym_any_invocation, 2935), (sym_this_invocation, 2641), (sym_super_invocation, 2641),
     (sym_super_body_invocation, 2935), (sym_path_expression, 2627), (sym_field_expression, 2373),
     (sym_index_expression, 2373), (sym_ladder_diagram, 7970), (sym_fb_diagram, 7970),
     (aux_sym_ERR_fb_variables_after_method_repeat1, 2343), (aux_sym_func_decl_repeat1, 7194),
     (aux_sym_fb_decl_repeat3, 2549), (aux_sym_SFC_repeat1, 7612),
     (aux_sym_stmt_list_repeat1, 2024), (aux_sym_ladder_diagram_repeat1, 8009),
     (aux_sym_fb_diagram_repeat1, 8013), (sym_identifier, 298),
     (aux_sym_ERR_unexpected_this_in_path_token1, 304),
     (aux_sym_ERR_unexpected_super_in_path_token1, 306), (sym_line_comment, 3),
     (anon_sym_LBRACE, 308), (aux_sym_test_pragma_token1, 9), (aux_sym_once_pragma_token1, 11),
     (aux_sym_must_call_pragma_token1, 13), (aux_sym_export_pragma_token1, 15),
     (anon_sym_SEMI, 310), (anon_sym_PERCENT, 312), (aux_sym_input_decls_token1, 314),
     (aux_sym_output_decls_token1, 316), (aux_sym_in_out_decls_token1, 318),
     (aux_sym_var_decls_token1, 320), (aux_sym_temp_var_decls_token1, 322),
     (aux_sym_external_var_decls_token1, 324), (aux_sym_global_var_decls_token1, 326),
     (aux_sym_fb_decl_token4, 1870), (aux_sym_method_decl_token1, 330),
     (aux_sym_prog_access_decls_token1, 332), (aux_sym_initial_step_token1, 334),
     (aux_sym_config_init_token1, 336), (aux_sym__stmt_token1, 340), (aux_sym__stmt_token2, 340),
     (aux_sym__stmt_token3, 340), (aux_sym_if_stmt_token1, 342), (aux_sym_case_stmt_token1, 344),
     (aux_sym_for_stmt_token1, 346), (aux_sym_while_stmt_token1, 348),
     (aux_sym_repeat_stmt_token1, 350), (aux_sym_raise_stmt_token1, 352),
     (aux_sym_try_stmt_token1, 354), (aux_sym_try_stmt_token2, 356),
     (aux_sym_catch_clause_token1, 356), (aux_sym_finally_clause_token1, 356), (sym_ld_rung, 358),
     (sym_fbd_network, 360), (sym_c_style_comment, 3), (sym_pascal_style_comment, 3),
     (sym_pragma, 3)]"

lemma ts_parse_row_770_scan: "row_scan tokens_63_2 0 ts_parse_row_770 = Some (Suc (Suc (Suc (Suc 0))))"
  unfolding ts_parse_row_770_def by simp

text \<open>Lines 142332 to 142444.\<close>

definition ts_parse_row_771 :: parse_row where
  "ts_parse_row_771 =
    [(sym_ERR_assign_func_call, 7530), (sym_ERR_unexpected_this_in_path, 2372),
     (sym_ERR_unexpected_super_in_path, 2372), (sym_ERR_fb_variables_after_method, 1759),
     (sym_ERR_var_access_not_allowed, 3160), (sym_ERR_var_config_not_allowed, 3160),
     (sym_ERR_var_global_not_allowed, 3160), (sym_ERR_method_decl_in_body, 3150),
     (sym_extern_pragma, 7490), (sym_wasm_pragma, 3150), (sym_warn_pragma, 7490),
     (sym_allow_pragma, 3140), (sym_test_pragma, 7490), (sym_once_pragma, 7490),
     (sym_must_call_pragma, 7490), (sym_export_pragma, 7490), (sym_pou_pragma, 7194),
     (sym_direct_variable, 7675), (sym_deref_expression, 2373), (sym_variable, 7599),
     (sym_var_access, 2373), (sym_in_out_decls, 3160), (sym_var_decls, 3160),
     (sym_retain_var_decls, 3160), (sym_temp_var_decls, 3160), (sym_external_var_decls, 3160),
     (sym_global_var_decls, 2947), (sym_loc_partly_var_decl, 3160), (sym__fb_variables, 2343),
     (sym_fb_input_decls, 3160), (sym_fb_output_decls, 3160), (sym_no_retain_var_decls, 3160),
     (sym_fb_body, 10305), (sym_method_decl, 2549), (sym_prog_access_decls, 3043), (sym_SFC, 7970),
     (sym_SFC_network, 7612), (sym_initial_step, 7439), (sym_config_init, 3047),
     (sym_variable_access, 7530), (sym_func_call, 2961), (sym_stmt_list, 7970), (sym__stmt, 2024),
     (sym_assign, 3150), (sym_if_stmt, 3150), (sym_case_stmt, 3150), (sym_for_stmt, 3150),
     (sym_while_stmt, 3150), (sym_repeat_stmt, 3150), (sym_raise_stmt, 3150), (sym_try_stmt, 3150),
     (sym_ERR_clause_outside_try, 3150), (sym_begin_path_expression, 2943), (sym_invocation, 2934),
     (sym_any_invocation, 2935), (sym_this_invocation, 2641), (sym_super_invocation, 2641),
     (sym_super_body_invocation, 2935), (sym_path_expression, 2627), (sym_field_expression, 2373),
     (sym_index_expression, 2373), (sym_ladder_diagram, 7970), (sym_fb_diagram, 7970),
     (aux_sym_ERR_fb_variables_after_method_repeat1, 2343), (aux_sym_func_decl_repeat1, 7194),
     (aux_sym_fb_decl_repeat3, 2549), (aux_sym_SFC_repeat1, 7612),
     (aux_sym_stmt_list_repeat1, 2024), (aux_sym_ladder_diagram_repeat1, 8009),
     (aux_sym_fb_diagram_repeat1, 8013), (sym_identifier, 298),
     (aux_sym_ERR_unexpected_this_in_path_token1, 304),
     (aux_sym_ERR_unexpected_super_in_path_token1, 306), (sym_line_comment, 3),
     (anon_sym_LBRACE, 308), (aux_sym_test_pragma_token1, 9), (aux_sym_once_pragma_token1, 11),
     (aux_sym_must_call_pragma_token1, 13), (aux_sym_export_pragma_token1, 15),
     (anon_sym_SEMI, 310), (anon_sym_PERCENT, 312), (aux_sym_input_decls_token1, 314),
     (aux_sym_output_decls_token1, 316), (aux_sym_in_out_decls_token1, 318),
     (aux_sym_var_decls_token1, 320), (aux_sym_temp_var_decls_token1, 322),
     (aux_sym_external_var_decls_token1, 324), (aux_sym_global_var_decls_token1, 326),
     (aux_sym_fb_decl_token4, 1872), (aux_sym_method_decl_token1, 330),
     (aux_sym_prog_access_decls_token1, 332), (aux_sym_initial_step_token1, 334),
     (aux_sym_config_init_token1, 336), (aux_sym__stmt_token1, 340), (aux_sym__stmt_token2, 340),
     (aux_sym__stmt_token3, 340), (aux_sym_if_stmt_token1, 342), (aux_sym_case_stmt_token1, 344),
     (aux_sym_for_stmt_token1, 346), (aux_sym_while_stmt_token1, 348),
     (aux_sym_repeat_stmt_token1, 350), (aux_sym_raise_stmt_token1, 352),
     (aux_sym_try_stmt_token1, 354), (aux_sym_try_stmt_token2, 356),
     (aux_sym_catch_clause_token1, 356), (aux_sym_finally_clause_token1, 356), (sym_ld_rung, 358),
     (sym_fbd_network, 360), (sym_c_style_comment, 3), (sym_pascal_style_comment, 3),
     (sym_pragma, 3)]"

lemma ts_parse_row_771_scan: "row_scan tokens_63_2 0 ts_parse_row_771 = Some (Suc (Suc (Suc (Suc 0))))"
  unfolding ts_parse_row_771_def by simp

text \<open>Lines 142445 to 142557.\<close>

definition ts_parse_row_772 :: parse_row where
  "ts_parse_row_772 =
    [(sym_ERR_assign_func_call, 7530), (sym_ERR_unexpected_this_in_path, 2372),
     (sym_ERR_unexpected_super_in_path, 2372), (sym_ERR_fb_variables_after_method, 1760),
     (sym_ERR_var_access_not_allowed, 3160), (sym_ERR_var_config_not_allowed, 3160),
     (sym_ERR_var_global_not_allowed, 3160), (sym_ERR_method_decl_in_body, 3150),
     (sym_extern_pragma, 7490), (sym_wasm_pragma, 3150), (sym_warn_pragma, 7490),
     (sym_allow_pragma, 3140), (sym_test_pragma, 7490), (sym_once_pragma, 7490),
     (sym_must_call_pragma, 7490), (sym_export_pragma, 7490), (sym_pou_pragma, 7194),
     (sym_direct_variable, 7675), (sym_deref_expression, 2373), (sym_variable, 7599),
     (sym_var_access, 2373), (sym_in_out_decls, 3160), (sym_var_decls, 3160),
     (sym_retain_var_decls, 3160), (sym_temp_var_decls, 3160), (sym_external_var_decls, 3160),
     (sym_global_var_decls, 2947), (sym_loc_partly_var_decl, 3160), (sym__fb_variables, 2343),
     (sym_fb_input_decls, 3160), (sym_fb_output_decls, 3160), (sym_no_retain_var_decls, 3160),
     (sym_fb_body, 10444), (sym_method_decl, 2549), (sym_prog_access_decls, 3043), (sym_SFC, 7970),
     (sym_SFC_network, 7612), (sym_initial_step, 7439), (sym_config_init, 3047),
     (sym_variable_access, 7530), (sym_func_call, 2961), (sym_stmt_list, 7970), (sym__stmt, 2024),
     (sym_assign, 3150), (sym_if_stmt, 3150), (sym_case_stmt, 3150), (sym_for_stmt, 3150),
     (sym_while_stmt, 3150), (sym_repeat_stmt, 3150), (sym_raise_stmt, 3150), (sym_try_stmt, 3150),
     (sym_ERR_clause_outside_try, 3150), (sym_begin_path_expression, 2943), (sym_invocation, 2934),
     (sym_any_invocation, 2935), (sym_this_invocation, 2641), (sym_super_invocation, 2641),
     (sym_super_body_invocation, 2935), (sym_path_expression, 2627), (sym_field_expression, 2373),
     (sym_index_expression, 2373), (sym_ladder_diagram, 7970), (sym_fb_diagram, 7970),
     (aux_sym_ERR_fb_variables_after_method_repeat1, 2343), (aux_sym_func_decl_repeat1, 7194),
     (aux_sym_fb_decl_repeat3, 2549), (aux_sym_SFC_repeat1, 7612),
     (aux_sym_stmt_list_repeat1, 2024), (aux_sym_ladder_diagram_repeat1, 8009),
     (aux_sym_fb_diagram_repeat1, 8013), (sym_identifier, 298),
     (aux_sym_ERR_unexpected_this_in_path_token1, 304),
     (aux_sym_ERR_unexpected_super_in_path_token1, 306), (sym_line_comment, 3),
     (anon_sym_LBRACE, 308), (aux_sym_test_pragma_token1, 9), (aux_sym_once_pragma_token1, 11),
     (aux_sym_must_call_pragma_token1, 13), (aux_sym_export_pragma_token1, 15),
     (anon_sym_SEMI, 310), (anon_sym_PERCENT, 312), (aux_sym_input_decls_token1, 314),
     (aux_sym_output_decls_token1, 316), (aux_sym_in_out_decls_token1, 318),
     (aux_sym_var_decls_token1, 320), (aux_sym_temp_var_decls_token1, 322),
     (aux_sym_external_var_decls_token1, 324), (aux_sym_global_var_decls_token1, 326),
     (aux_sym_fb_decl_token4, 1874), (aux_sym_method_decl_token1, 330),
     (aux_sym_prog_access_decls_token1, 332), (aux_sym_initial_step_token1, 334),
     (aux_sym_config_init_token1, 336), (aux_sym__stmt_token1, 340), (aux_sym__stmt_token2, 340),
     (aux_sym__stmt_token3, 340), (aux_sym_if_stmt_token1, 342), (aux_sym_case_stmt_token1, 344),
     (aux_sym_for_stmt_token1, 346), (aux_sym_while_stmt_token1, 348),
     (aux_sym_repeat_stmt_token1, 350), (aux_sym_raise_stmt_token1, 352),
     (aux_sym_try_stmt_token1, 354), (aux_sym_try_stmt_token2, 356),
     (aux_sym_catch_clause_token1, 356), (aux_sym_finally_clause_token1, 356), (sym_ld_rung, 358),
     (sym_fbd_network, 360), (sym_c_style_comment, 3), (sym_pascal_style_comment, 3),
     (sym_pragma, 3)]"

lemma ts_parse_row_772_scan: "row_scan tokens_63_2 0 ts_parse_row_772 = Some (Suc (Suc (Suc (Suc 0))))"
  unfolding ts_parse_row_772_def by simp

text \<open>Lines 142558 to 142670.\<close>

definition ts_parse_row_773 :: parse_row where
  "ts_parse_row_773 =
    [(sym_ERR_assign_func_call, 7530), (sym_ERR_unexpected_this_in_path, 2372),
     (sym_ERR_unexpected_super_in_path, 2372), (sym_ERR_fb_variables_after_method, 1761),
     (sym_ERR_var_access_not_allowed, 3160), (sym_ERR_var_config_not_allowed, 3160),
     (sym_ERR_var_global_not_allowed, 3160), (sym_ERR_method_decl_in_body, 3150),
     (sym_extern_pragma, 7490), (sym_wasm_pragma, 3150), (sym_warn_pragma, 7490),
     (sym_allow_pragma, 3140), (sym_test_pragma, 7490), (sym_once_pragma, 7490),
     (sym_must_call_pragma, 7490), (sym_export_pragma, 7490), (sym_pou_pragma, 7194),
     (sym_direct_variable, 7675), (sym_deref_expression, 2373), (sym_variable, 7599),
     (sym_var_access, 2373), (sym_in_out_decls, 3160), (sym_var_decls, 3160),
     (sym_retain_var_decls, 3160), (sym_temp_var_decls, 3160), (sym_external_var_decls, 3160),
     (sym_global_var_decls, 2947), (sym_loc_partly_var_decl, 3160), (sym__fb_variables, 2343),
     (sym_fb_input_decls, 3160), (sym_fb_output_decls, 3160), (sym_no_retain_var_decls, 3160),
     (sym_fb_body, 10504), (sym_method_decl, 2549), (sym_prog_access_decls, 3043), (sym_SFC, 7970),
     (sym_SFC_network, 7612), (sym_initial_step, 7439), (sym_config_init, 3047),
     (sym_variable_access, 7530), (sym_func_call, 2961), (sym_stmt_list, 7970), (sym__stmt, 2024),
     (sym_assign, 3150), (sym_if_stmt, 3150), (sym_case_stmt, 3150), (sym_for_stmt, 3150),
     (sym_while_stmt, 3150), (sym_repeat_stmt, 3150), (sym_raise_stmt, 3150), (sym_try_stmt, 3150),
     (sym_ERR_clause_outside_try, 3150), (sym_begin_path_expression, 2943), (sym_invocation, 2934),
     (sym_any_invocation, 2935), (sym_this_invocation, 2641), (sym_super_invocation, 2641),
     (sym_super_body_invocation, 2935), (sym_path_expression, 2627), (sym_field_expression, 2373),
     (sym_index_expression, 2373), (sym_ladder_diagram, 7970), (sym_fb_diagram, 7970),
     (aux_sym_ERR_fb_variables_after_method_repeat1, 2343), (aux_sym_func_decl_repeat1, 7194),
     (aux_sym_fb_decl_repeat3, 2549), (aux_sym_SFC_repeat1, 7612),
     (aux_sym_stmt_list_repeat1, 2024), (aux_sym_ladder_diagram_repeat1, 8009),
     (aux_sym_fb_diagram_repeat1, 8013), (sym_identifier, 298),
     (aux_sym_ERR_unexpected_this_in_path_token1, 304),
     (aux_sym_ERR_unexpected_super_in_path_token1, 306), (sym_line_comment, 3),
     (anon_sym_LBRACE, 308), (aux_sym_test_pragma_token1, 9), (aux_sym_once_pragma_token1, 11),
     (aux_sym_must_call_pragma_token1, 13), (aux_sym_export_pragma_token1, 15),
     (anon_sym_SEMI, 310), (anon_sym_PERCENT, 312), (aux_sym_input_decls_token1, 314),
     (aux_sym_output_decls_token1, 316), (aux_sym_in_out_decls_token1, 318),
     (aux_sym_var_decls_token1, 320), (aux_sym_temp_var_decls_token1, 322),
     (aux_sym_external_var_decls_token1, 324), (aux_sym_global_var_decls_token1, 326),
     (aux_sym_fb_decl_token4, 1876), (aux_sym_method_decl_token1, 330),
     (aux_sym_prog_access_decls_token1, 332), (aux_sym_initial_step_token1, 334),
     (aux_sym_config_init_token1, 336), (aux_sym__stmt_token1, 340), (aux_sym__stmt_token2, 340),
     (aux_sym__stmt_token3, 340), (aux_sym_if_stmt_token1, 342), (aux_sym_case_stmt_token1, 344),
     (aux_sym_for_stmt_token1, 346), (aux_sym_while_stmt_token1, 348),
     (aux_sym_repeat_stmt_token1, 350), (aux_sym_raise_stmt_token1, 352),
     (aux_sym_try_stmt_token1, 354), (aux_sym_try_stmt_token2, 356),
     (aux_sym_catch_clause_token1, 356), (aux_sym_finally_clause_token1, 356), (sym_ld_rung, 358),
     (sym_fbd_network, 360), (sym_c_style_comment, 3), (sym_pascal_style_comment, 3),
     (sym_pragma, 3)]"

lemma ts_parse_row_773_scan: "row_scan tokens_63_2 0 ts_parse_row_773 = Some (Suc (Suc (Suc (Suc 0))))"
  unfolding ts_parse_row_773_def by simp

text \<open>Lines 142671 to 142783.\<close>

definition ts_parse_row_774 :: parse_row where
  "ts_parse_row_774 =
    [(sym_ERR_assign_func_call, 7530), (sym_ERR_unexpected_this_in_path, 2372),
     (sym_ERR_unexpected_super_in_path, 2372), (sym_ERR_fb_variables_after_method, 1762),
     (sym_ERR_var_access_not_allowed, 3160), (sym_ERR_var_config_not_allowed, 3160),
     (sym_ERR_var_global_not_allowed, 3160), (sym_ERR_method_decl_in_body, 3150),
     (sym_extern_pragma, 7490), (sym_wasm_pragma, 3150), (sym_warn_pragma, 7490),
     (sym_allow_pragma, 3140), (sym_test_pragma, 7490), (sym_once_pragma, 7490),
     (sym_must_call_pragma, 7490), (sym_export_pragma, 7490), (sym_pou_pragma, 7194),
     (sym_direct_variable, 7675), (sym_deref_expression, 2373), (sym_variable, 7599),
     (sym_var_access, 2373), (sym_in_out_decls, 3160), (sym_var_decls, 3160),
     (sym_retain_var_decls, 3160), (sym_temp_var_decls, 3160), (sym_external_var_decls, 3160),
     (sym_global_var_decls, 2947), (sym_loc_partly_var_decl, 3160), (sym__fb_variables, 2343),
     (sym_fb_input_decls, 3160), (sym_fb_output_decls, 3160), (sym_no_retain_var_decls, 3160),
     (sym_fb_body, 8208), (sym_method_decl, 2549), (sym_prog_access_decls, 3043), (sym_SFC, 7970),
     (sym_SFC_network, 7612), (sym_initial_step, 7439), (sym_config_init, 3047),
     (sym_variable_access, 7530), (sym_func_call, 2961), (sym_stmt_list, 7970), (sym__stmt, 2024),
     (sym_assign, 3150), (sym_if_stmt, 3150), (sym_case_stmt, 3150), (sym_for_stmt, 3150),
     (sym_while_stmt, 3150), (sym_repeat_stmt, 3150), (sym_raise_stmt, 3150), (sym_try_stmt, 3150),
     (sym_ERR_clause_outside_try, 3150), (sym_begin_path_expression, 2943), (sym_invocation, 2934),
     (sym_any_invocation, 2935), (sym_this_invocation, 2641), (sym_super_invocation, 2641),
     (sym_super_body_invocation, 2935), (sym_path_expression, 2627), (sym_field_expression, 2373),
     (sym_index_expression, 2373), (sym_ladder_diagram, 7970), (sym_fb_diagram, 7970),
     (aux_sym_ERR_fb_variables_after_method_repeat1, 2343), (aux_sym_func_decl_repeat1, 7194),
     (aux_sym_fb_decl_repeat3, 2549), (aux_sym_SFC_repeat1, 7612),
     (aux_sym_stmt_list_repeat1, 2024), (aux_sym_ladder_diagram_repeat1, 8009),
     (aux_sym_fb_diagram_repeat1, 8013), (sym_identifier, 298),
     (aux_sym_ERR_unexpected_this_in_path_token1, 304),
     (aux_sym_ERR_unexpected_super_in_path_token1, 306), (sym_line_comment, 3),
     (anon_sym_LBRACE, 308), (aux_sym_test_pragma_token1, 9), (aux_sym_once_pragma_token1, 11),
     (aux_sym_must_call_pragma_token1, 13), (aux_sym_export_pragma_token1, 15),
     (anon_sym_SEMI, 310), (anon_sym_PERCENT, 312), (aux_sym_input_decls_token1, 314),
     (aux_sym_output_decls_token1, 316), (aux_sym_in_out_decls_token1, 318),
     (aux_sym_var_decls_token1, 320), (aux_sym_temp_var_decls_token1, 322),
     (aux_sym_external_var_decls_token1, 324), (aux_sym_global_var_decls_token1, 326),
     (aux_sym_fb_decl_token4, 1878), (aux_sym_method_decl_token1, 330),
     (aux_sym_prog_access_decls_token1, 332), (aux_sym_initial_step_token1, 334),
     (aux_sym_config_init_token1, 336), (aux_sym__stmt_token1, 340), (aux_sym__stmt_token2, 340),
     (aux_sym__stmt_token3, 340), (aux_sym_if_stmt_token1, 342), (aux_sym_case_stmt_token1, 344),
     (aux_sym_for_stmt_token1, 346), (aux_sym_while_stmt_token1, 348),
     (aux_sym_repeat_stmt_token1, 350), (aux_sym_raise_stmt_token1, 352),
     (aux_sym_try_stmt_token1, 354), (aux_sym_try_stmt_token2, 356),
     (aux_sym_catch_clause_token1, 356), (aux_sym_finally_clause_token1, 356), (sym_ld_rung, 358),
     (sym_fbd_network, 360), (sym_c_style_comment, 3), (sym_pascal_style_comment, 3),
     (sym_pragma, 3)]"

lemma ts_parse_row_774_scan: "row_scan tokens_63_2 0 ts_parse_row_774 = Some (Suc (Suc (Suc (Suc 0))))"
  unfolding ts_parse_row_774_def by simp

text \<open>Lines 142784 to 142896.\<close>

definition ts_parse_row_775 :: parse_row where
  "ts_parse_row_775 =
    [(sym_ERR_assign_func_call, 7530), (sym_ERR_unexpected_this_in_path, 2372),
     (sym_ERR_unexpected_super_in_path, 2372), (sym_ERR_fb_variables_after_method, 1763),
     (sym_ERR_var_access_not_allowed, 3160), (sym_ERR_var_config_not_allowed, 3160),
     (sym_ERR_var_global_not_allowed, 3160), (sym_ERR_method_decl_in_body, 3150),
     (sym_extern_pragma, 7490), (sym_wasm_pragma, 3150), (sym_warn_pragma, 7490),
     (sym_allow_pragma, 3140), (sym_test_pragma, 7490), (sym_once_pragma, 7490),
     (sym_must_call_pragma, 7490), (sym_export_pragma, 7490), (sym_pou_pragma, 7194),
     (sym_direct_variable, 7675), (sym_deref_expression, 2373), (sym_variable, 7599),
     (sym_var_access, 2373), (sym_in_out_decls, 3160), (sym_var_decls, 3160),
     (sym_retain_var_decls, 3160), (sym_temp_var_decls, 3160), (sym_external_var_decls, 3160),
     (sym_global_var_decls, 2947), (sym_loc_partly_var_decl, 3160), (sym__fb_variables, 2347),
     (sym_fb_input_decls, 3160), (sym_fb_output_decls, 3160), (sym_no_retain_var_decls, 3160),
     (sym_fb_body, 8214), (sym_method_decl, 821), (sym_prog_access_decls, 3043), (sym_SFC, 7970),
     (sym_SFC_network, 7612), (sym_initial_step, 7439), (sym_config_init, 3047),
     (sym_variable_access, 7530), (sym_func_call, 2961), (sym_stmt_list, 7970), (sym__stmt, 2024),
     (sym_assign, 3150), (sym_if_stmt, 3150), (sym_case_stmt, 3150), (sym_for_stmt, 3150),
     (sym_while_stmt, 3150), (sym_repeat_stmt, 3150), (sym_raise_stmt, 3150), (sym_try_stmt, 3150),
     (sym_ERR_clause_outside_try, 3150), (sym_begin_path_expression, 2943), (sym_invocation, 2934),
     (sym_any_invocation, 2935), (sym_this_invocation, 2641), (sym_super_invocation, 2641),
     (sym_super_body_invocation, 2935), (sym_path_expression, 2627), (sym_field_expression, 2373),
     (sym_index_expression, 2373), (sym_ladder_diagram, 7970), (sym_fb_diagram, 7970),
     (aux_sym_ERR_fb_variables_after_method_repeat1, 2347), (aux_sym_func_decl_repeat1, 7194),
     (aux_sym_fb_decl_repeat3, 821), (aux_sym_SFC_repeat1, 7612), (aux_sym_stmt_list_repeat1, 2024),
     (aux_sym_ladder_diagram_repeat1, 8009), (aux_sym_fb_diagram_repeat1, 8013),
     (sym_identifier, 298), (aux_sym_ERR_unexpected_this_in_path_token1, 304),
     (aux_sym_ERR_unexpected_super_in_path_token1, 306), (sym_line_comment, 3),
     (anon_sym_LBRACE, 308), (aux_sym_test_pragma_token1, 9), (aux_sym_once_pragma_token1, 11),
     (aux_sym_must_call_pragma_token1, 13), (aux_sym_export_pragma_token1, 15),
     (anon_sym_SEMI, 310), (anon_sym_PERCENT, 312), (aux_sym_input_decls_token1, 314),
     (aux_sym_output_decls_token1, 316), (aux_sym_in_out_decls_token1, 318),
     (aux_sym_var_decls_token1, 320), (aux_sym_temp_var_decls_token1, 322),
     (aux_sym_external_var_decls_token1, 324), (aux_sym_global_var_decls_token1, 326),
     (aux_sym_fb_decl_token4, 1880), (aux_sym_method_decl_token1, 330),
     (aux_sym_prog_access_decls_token1, 332), (aux_sym_initial_step_token1, 334),
     (aux_sym_config_init_token1, 336), (aux_sym__stmt_token1, 340), (aux_sym__stmt_token2, 340),
     (aux_sym__stmt_token3, 340), (aux_sym_if_stmt_token1, 342), (aux_sym_case_stmt_token1, 344),
     (aux_sym_for_stmt_token1, 346), (aux_sym_while_stmt_token1, 348),
     (aux_sym_repeat_stmt_token1, 350), (aux_sym_raise_stmt_token1, 352),
     (aux_sym_try_stmt_token1, 354), (aux_sym_try_stmt_token2, 356),
     (aux_sym_catch_clause_token1, 356), (aux_sym_finally_clause_token1, 356), (sym_ld_rung, 358),
     (sym_fbd_network, 360), (sym_c_style_comment, 3), (sym_pascal_style_comment, 3),
     (sym_pragma, 3)]"

lemma ts_parse_row_775_scan: "row_scan tokens_63_2 0 ts_parse_row_775 = Some (Suc (Suc (Suc (Suc 0))))"
  unfolding ts_parse_row_775_def by simp

text \<open>Lines 142897 to 143009.\<close>

definition ts_parse_row_776 :: parse_row where
  "ts_parse_row_776 =
    [(sym_ERR_assign_func_call, 7530), (sym_ERR_unexpected_this_in_path, 2372),
     (sym_ERR_unexpected_super_in_path, 2372), (sym_ERR_fb_variables_after_method, 1764),
     (sym_ERR_var_access_not_allowed, 3160), (sym_ERR_var_config_not_allowed, 3160),
     (sym_ERR_var_global_not_allowed, 3160), (sym_ERR_method_decl_in_body, 3150),
     (sym_extern_pragma, 7490), (sym_wasm_pragma, 3150), (sym_warn_pragma, 7490),
     (sym_allow_pragma, 3140), (sym_test_pragma, 7490), (sym_once_pragma, 7490),
     (sym_must_call_pragma, 7490), (sym_export_pragma, 7490), (sym_pou_pragma, 7194),
     (sym_direct_variable, 7675), (sym_deref_expression, 2373), (sym_variable, 7599),
     (sym_var_access, 2373), (sym_in_out_decls, 3160), (sym_var_decls, 3160),
     (sym_retain_var_decls, 3160), (sym_temp_var_decls, 3160), (sym_external_var_decls, 3160),
     (sym_global_var_decls, 2947), (sym_loc_partly_var_decl, 3160), (sym__fb_variables, 2343),
     (sym_fb_input_decls, 3160), (sym_fb_output_decls, 3160), (sym_no_retain_var_decls, 3160),
     (sym_fb_body, 8218), (sym_method_decl, 2549), (sym_prog_access_decls, 3043), (sym_SFC, 7970),
     (sym_SFC_network, 7612), (sym_initial_step, 7439), (sym_config_init, 3047),
     (sym_variable_access, 7530), (sym_func_call, 2961), (sym_stmt_list, 7970), (sym__stmt, 2024),
     (sym_assign, 3150), (sym_if_stmt, 3150), (sym_case_stmt, 3150), (sym_for_stmt, 3150),
     (sym_while_stmt, 3150), (sym_repeat_stmt, 3150), (sym_raise_stmt, 3150), (sym_try_stmt, 3150),
     (sym_ERR_clause_outside_try, 3150), (sym_begin_path_expression, 2943), (sym_invocation, 2934),
     (sym_any_invocation, 2935), (sym_this_invocation, 2641), (sym_super_invocation, 2641),
     (sym_super_body_invocation, 2935), (sym_path_expression, 2627), (sym_field_expression, 2373),
     (sym_index_expression, 2373), (sym_ladder_diagram, 7970), (sym_fb_diagram, 7970),
     (aux_sym_ERR_fb_variables_after_method_repeat1, 2343), (aux_sym_func_decl_repeat1, 7194),
     (aux_sym_fb_decl_repeat3, 2549), (aux_sym_SFC_repeat1, 7612),
     (aux_sym_stmt_list_repeat1, 2024), (aux_sym_ladder_diagram_repeat1, 8009),
     (aux_sym_fb_diagram_repeat1, 8013), (sym_identifier, 298),
     (aux_sym_ERR_unexpected_this_in_path_token1, 304),
     (aux_sym_ERR_unexpected_super_in_path_token1, 306), (sym_line_comment, 3),
     (anon_sym_LBRACE, 308), (aux_sym_test_pragma_token1, 9), (aux_sym_once_pragma_token1, 11),
     (aux_sym_must_call_pragma_token1, 13), (aux_sym_export_pragma_token1, 15),
     (anon_sym_SEMI, 310), (anon_sym_PERCENT, 312), (aux_sym_input_decls_token1, 314),
     (aux_sym_output_decls_token1, 316), (aux_sym_in_out_decls_token1, 318),
     (aux_sym_var_decls_token1, 320), (aux_sym_temp_var_decls_token1, 322),
     (aux_sym_external_var_decls_token1, 324), (aux_sym_global_var_decls_token1, 326),
     (aux_sym_fb_decl_token4, 1882), (aux_sym_method_decl_token1, 330),
     (aux_sym_prog_access_decls_token1, 332), (aux_sym_initial_step_token1, 334),
     (aux_sym_config_init_token1, 336), (aux_sym__stmt_token1, 340), (aux_sym__stmt_token2, 340),
     (aux_sym__stmt_token3, 340), (aux_sym_if_stmt_token1, 342), (aux_sym_case_stmt_token1, 344),
     (aux_sym_for_stmt_token1, 346), (aux_sym_while_stmt_token1, 348),
     (aux_sym_repeat_stmt_token1, 350), (aux_sym_raise_stmt_token1, 352),
     (aux_sym_try_stmt_token1, 354), (aux_sym_try_stmt_token2, 356),
     (aux_sym_catch_clause_token1, 356), (aux_sym_finally_clause_token1, 356), (sym_ld_rung, 358),
     (sym_fbd_network, 360), (sym_c_style_comment, 3), (sym_pascal_style_comment, 3),
     (sym_pragma, 3)]"

lemma ts_parse_row_776_scan: "row_scan tokens_63_2 0 ts_parse_row_776 = Some (Suc (Suc (Suc (Suc 0))))"
  unfolding ts_parse_row_776_def by simp

text \<open>Lines 143010 to 143122.\<close>

definition ts_parse_row_777 :: parse_row where
  "ts_parse_row_777 =
    [(sym_ERR_assign_func_call, 7530), (sym_ERR_unexpected_this_in_path, 2372),
     (sym_ERR_unexpected_super_in_path, 2372), (sym_ERR_fb_variables_after_method, 1765),
     (sym_ERR_var_access_not_allowed, 3160), (sym_ERR_var_config_not_allowed, 3160),
     (sym_ERR_var_global_not_allowed, 3160), (sym_ERR_method_decl_in_body, 3150),
     (sym_extern_pragma, 7490), (sym_wasm_pragma, 3150), (sym_warn_pragma, 7490),
     (sym_allow_pragma, 3140), (sym_test_pragma, 7490), (sym_once_pragma, 7490),
     (sym_must_call_pragma, 7490), (sym_export_pragma, 7490), (sym_pou_pragma, 7194),
     (sym_direct_variable, 7675), (sym_deref_expression, 2373), (sym_variable, 7599),
     (sym_var_access, 2373), (sym_in_out_decls, 3160), (sym_var_decls, 3160),
     (sym_retain_var_decls, 3160), (sym_temp_var_decls, 3160), (sym_external_var_decls, 3160),
     (sym_global_var_decls, 2947), (sym_loc_partly_var_decl, 3160), (sym__fb_variables, 2347),
     (sym_fb_input_decls, 3160), (sym_fb_output_decls, 3160), (sym_no_retain_var_decls, 3160),
     (sym_fb_body, 8223), (sym_method_decl, 822), (sym_prog_access_decls, 3043), (sym_SFC, 7970),
     (sym_SFC_network, 7612), (sym_initial_step, 7439), (sym_config_init, 3047),
     (sym_variable_access, 7530), (sym_func_call, 2961), (sym_stmt_list, 7970), (sym__stmt, 2024),
     (sym_assign, 3150), (sym_if_stmt, 3150), (sym_case_stmt, 3150), (sym_for_stmt, 3150),
     (sym_while_stmt, 3150), (sym_repeat_stmt, 3150), (sym_raise_stmt, 3150), (sym_try_stmt, 3150),
     (sym_ERR_clause_outside_try, 3150), (sym_begin_path_expression, 2943), (sym_invocation, 2934),
     (sym_any_invocation, 2935), (sym_this_invocation, 2641), (sym_super_invocation, 2641),
     (sym_super_body_invocation, 2935), (sym_path_expression, 2627), (sym_field_expression, 2373),
     (sym_index_expression, 2373), (sym_ladder_diagram, 7970), (sym_fb_diagram, 7970),
     (aux_sym_ERR_fb_variables_after_method_repeat1, 2347), (aux_sym_func_decl_repeat1, 7194),
     (aux_sym_fb_decl_repeat3, 822), (aux_sym_SFC_repeat1, 7612), (aux_sym_stmt_list_repeat1, 2024),
     (aux_sym_ladder_diagram_repeat1, 8009), (aux_sym_fb_diagram_repeat1, 8013),
     (sym_identifier, 298), (aux_sym_ERR_unexpected_this_in_path_token1, 304),
     (aux_sym_ERR_unexpected_super_in_path_token1, 306), (sym_line_comment, 3),
     (anon_sym_LBRACE, 308), (aux_sym_test_pragma_token1, 9), (aux_sym_once_pragma_token1, 11),
     (aux_sym_must_call_pragma_token1, 13), (aux_sym_export_pragma_token1, 15),
     (anon_sym_SEMI, 310), (anon_sym_PERCENT, 312), (aux_sym_input_decls_token1, 314),
     (aux_sym_output_decls_token1, 316), (aux_sym_in_out_decls_token1, 318),
     (aux_sym_var_decls_token1, 320), (aux_sym_temp_var_decls_token1, 322),
     (aux_sym_external_var_decls_token1, 324), (aux_sym_global_var_decls_token1, 326),
     (aux_sym_fb_decl_token4, 1884), (aux_sym_method_decl_token1, 330),
     (aux_sym_prog_access_decls_token1, 332), (aux_sym_initial_step_token1, 334),
     (aux_sym_config_init_token1, 336), (aux_sym__stmt_token1, 340), (aux_sym__stmt_token2, 340),
     (aux_sym__stmt_token3, 340), (aux_sym_if_stmt_token1, 342), (aux_sym_case_stmt_token1, 344),
     (aux_sym_for_stmt_token1, 346), (aux_sym_while_stmt_token1, 348),
     (aux_sym_repeat_stmt_token1, 350), (aux_sym_raise_stmt_token1, 352),
     (aux_sym_try_stmt_token1, 354), (aux_sym_try_stmt_token2, 356),
     (aux_sym_catch_clause_token1, 356), (aux_sym_finally_clause_token1, 356), (sym_ld_rung, 358),
     (sym_fbd_network, 360), (sym_c_style_comment, 3), (sym_pascal_style_comment, 3),
     (sym_pragma, 3)]"

lemma ts_parse_row_777_scan: "row_scan tokens_63_2 0 ts_parse_row_777 = Some (Suc (Suc (Suc (Suc 0))))"
  unfolding ts_parse_row_777_def by simp

text \<open>Lines 143123 to 143235.\<close>

definition ts_parse_row_778 :: parse_row where
  "ts_parse_row_778 =
    [(sym_ERR_assign_func_call, 7530), (sym_ERR_unexpected_this_in_path, 2372),
     (sym_ERR_unexpected_super_in_path, 2372), (sym_ERR_fb_variables_after_method, 1291),
     (sym_ERR_var_access_not_allowed, 3160), (sym_ERR_var_config_not_allowed, 3160),
     (sym_ERR_var_global_not_allowed, 3160), (sym_ERR_method_decl_in_body, 3150),
     (sym_extern_pragma, 7490), (sym_wasm_pragma, 3150), (sym_warn_pragma, 7490),
     (sym_allow_pragma, 3140), (sym_test_pragma, 7490), (sym_once_pragma, 7490),
     (sym_must_call_pragma, 7490), (sym_export_pragma, 7490), (sym_pou_pragma, 7194),
     (sym_direct_variable, 7675), (sym_deref_expression, 2373), (sym_variable, 7599),
     (sym_var_access, 2373), (sym_in_out_decls, 3160), (sym_var_decls, 3160),
     (sym_retain_var_decls, 3160), (sym_temp_var_decls, 3160), (sym_external_var_decls, 3160),
     (sym_global_var_decls, 2947), (sym_loc_partly_var_decl, 3160), (sym__fb_variables, 2343),
     (sym_fb_input_decls, 3160), (sym_fb_output_decls, 3160), (sym_no_retain_var_decls, 3160),
     (sym_fb_body, 9763), (sym_method_decl, 2549), (sym_prog_access_decls, 3043), (sym_SFC, 7970),
     (sym_SFC_network, 7612), (sym_initial_step, 7439), (sym_config_init, 3047),
     (sym_variable_access, 7530), (sym_func_call, 2961), (sym_stmt_list, 7970), (sym__stmt, 2024),
     (sym_assign, 3150), (sym_if_stmt, 3150), (sym_case_stmt, 3150), (sym_for_stmt, 3150),
     (sym_while_stmt, 3150), (sym_repeat_stmt, 3150), (sym_raise_stmt, 3150), (sym_try_stmt, 3150),
     (sym_ERR_clause_outside_try, 3150), (sym_begin_path_expression, 2943), (sym_invocation, 2934),
     (sym_any_invocation, 2935), (sym_this_invocation, 2641), (sym_super_invocation, 2641),
     (sym_super_body_invocation, 2935), (sym_path_expression, 2627), (sym_field_expression, 2373),
     (sym_index_expression, 2373), (sym_ladder_diagram, 7970), (sym_fb_diagram, 7970),
     (aux_sym_ERR_fb_variables_after_method_repeat1, 2343), (aux_sym_func_decl_repeat1, 7194),
     (aux_sym_fb_decl_repeat3, 2549), (aux_sym_SFC_repeat1, 7612),
     (aux_sym_stmt_list_repeat1, 2024), (aux_sym_ladder_diagram_repeat1, 8009),
     (aux_sym_fb_diagram_repeat1, 8013), (sym_identifier, 298),
     (aux_sym_ERR_unexpected_this_in_path_token1, 304),
     (aux_sym_ERR_unexpected_super_in_path_token1, 306), (sym_line_comment, 3),
     (anon_sym_LBRACE, 308), (aux_sym_test_pragma_token1, 9), (aux_sym_once_pragma_token1, 11),
     (aux_sym_must_call_pragma_token1, 13), (aux_sym_export_pragma_token1, 15),
     (anon_sym_SEMI, 310), (anon_sym_PERCENT, 312), (aux_sym_input_decls_token1, 314),
     (aux_sym_output_decls_token1, 316), (aux_sym_in_out_decls_token1, 318),
     (aux_sym_var_decls_token1, 320), (aux_sym_temp_var_decls_token1, 322),
     (aux_sym_external_var_decls_token1, 324), (aux_sym_global_var_decls_token1, 326),
     (aux_sym_fb_decl_token4, 1886), (aux_sym_method_decl_token1, 330),
     (aux_sym_prog_access_decls_token1, 332), (aux_sym_initial_step_token1, 334),
     (aux_sym_config_init_token1, 336), (aux_sym__stmt_token1, 340), (aux_sym__stmt_token2, 340),
     (aux_sym__stmt_token3, 340), (aux_sym_if_stmt_token1, 342), (aux_sym_case_stmt_token1, 344),
     (aux_sym_for_stmt_token1, 346), (aux_sym_while_stmt_token1, 348),
     (aux_sym_repeat_stmt_token1, 350), (aux_sym_raise_stmt_token1, 352),
     (aux_sym_try_stmt_token1, 354), (aux_sym_try_stmt_token2, 356),
     (aux_sym_catch_clause_token1, 356), (aux_sym_finally_clause_token1, 356), (sym_ld_rung, 358),
     (sym_fbd_network, 360), (sym_c_style_comment, 3), (sym_pascal_style_comment, 3),
     (sym_pragma, 3)]"

lemma ts_parse_row_778_scan: "row_scan tokens_63_2 0 ts_parse_row_778 = Some (Suc (Suc (Suc (Suc 0))))"
  unfolding ts_parse_row_778_def by simp

text \<open>Lines 143236 to 143348.\<close>

definition ts_parse_row_779 :: parse_row where
  "ts_parse_row_779 =
    [(sym_ERR_assign_func_call, 7530), (sym_ERR_unexpected_this_in_path, 2372),
     (sym_ERR_unexpected_super_in_path, 2372), (sym_ERR_fb_variables_after_method, 1769),
     (sym_ERR_var_access_not_allowed, 3160), (sym_ERR_var_config_not_allowed, 3160),
     (sym_ERR_var_global_not_allowed, 3160), (sym_ERR_method_decl_in_body, 3150),
     (sym_extern_pragma, 7490), (sym_wasm_pragma, 3150), (sym_warn_pragma, 7490),
     (sym_allow_pragma, 3140), (sym_test_pragma, 7490), (sym_once_pragma, 7490),
     (sym_must_call_pragma, 7490), (sym_export_pragma, 7490), (sym_pou_pragma, 7194),
     (sym_direct_variable, 7675), (sym_deref_expression, 2373), (sym_variable, 7599),
     (sym_var_access, 2373), (sym_in_out_decls, 3160), (sym_var_decls, 3160),
     (sym_retain_var_decls, 3160), (sym_temp_var_decls, 3160), (sym_external_var_decls, 3160),
     (sym_global_var_decls, 2947), (sym_loc_partly_var_decl, 3160), (sym__fb_variables, 2343),
     (sym_fb_input_decls, 3160), (sym_fb_output_decls, 3160), (sym_no_retain_var_decls, 3160),
     (sym_fb_body, 8232), (sym_method_decl, 2549), (sym_prog_access_decls, 3043), (sym_SFC, 7970),
     (sym_SFC_network, 7612), (sym_initial_step, 7439), (sym_config_init, 3047),
     (sym_variable_access, 7530), (sym_func_call, 2961), (sym_stmt_list, 7970), (sym__stmt, 2024),
     (sym_assign, 3150), (sym_if_stmt, 3150), (sym_case_stmt, 3150), (sym_for_stmt, 3150),
     (sym_while_stmt, 3150), (sym_repeat_stmt, 3150), (sym_raise_stmt, 3150), (sym_try_stmt, 3150),
     (sym_ERR_clause_outside_try, 3150), (sym_begin_path_expression, 2943), (sym_invocation, 2934),
     (sym_any_invocation, 2935), (sym_this_invocation, 2641), (sym_super_invocation, 2641),
     (sym_super_body_invocation, 2935), (sym_path_expression, 2627), (sym_field_expression, 2373),
     (sym_index_expression, 2373), (sym_ladder_diagram, 7970), (sym_fb_diagram, 7970),
     (aux_sym_ERR_fb_variables_after_method_repeat1, 2343), (aux_sym_func_decl_repeat1, 7194),
     (aux_sym_fb_decl_repeat3, 2549), (aux_sym_SFC_repeat1, 7612),
     (aux_sym_stmt_list_repeat1, 2024), (aux_sym_ladder_diagram_repeat1, 8009),
     (aux_sym_fb_diagram_repeat1, 8013), (sym_identifier, 298),
     (aux_sym_ERR_unexpected_this_in_path_token1, 304),
     (aux_sym_ERR_unexpected_super_in_path_token1, 306), (sym_line_comment, 3),
     (anon_sym_LBRACE, 308), (aux_sym_test_pragma_token1, 9), (aux_sym_once_pragma_token1, 11),
     (aux_sym_must_call_pragma_token1, 13), (aux_sym_export_pragma_token1, 15),
     (anon_sym_SEMI, 310), (anon_sym_PERCENT, 312), (aux_sym_input_decls_token1, 314),
     (aux_sym_output_decls_token1, 316), (aux_sym_in_out_decls_token1, 318),
     (aux_sym_var_decls_token1, 320), (aux_sym_temp_var_decls_token1, 322),
     (aux_sym_external_var_decls_token1, 324), (aux_sym_global_var_decls_token1, 326),
     (aux_sym_fb_decl_token4, 1888), (aux_sym_method_decl_token1, 330),
     (aux_sym_prog_access_decls_token1, 332), (aux_sym_initial_step_token1, 334),
     (aux_sym_config_init_token1, 336), (aux_sym__stmt_token1, 340), (aux_sym__stmt_token2, 340),
     (aux_sym__stmt_token3, 340), (aux_sym_if_stmt_token1, 342), (aux_sym_case_stmt_token1, 344),
     (aux_sym_for_stmt_token1, 346), (aux_sym_while_stmt_token1, 348),
     (aux_sym_repeat_stmt_token1, 350), (aux_sym_raise_stmt_token1, 352),
     (aux_sym_try_stmt_token1, 354), (aux_sym_try_stmt_token2, 356),
     (aux_sym_catch_clause_token1, 356), (aux_sym_finally_clause_token1, 356), (sym_ld_rung, 358),
     (sym_fbd_network, 360), (sym_c_style_comment, 3), (sym_pascal_style_comment, 3),
     (sym_pragma, 3)]"

lemma ts_parse_row_779_scan: "row_scan tokens_63_2 0 ts_parse_row_779 = Some (Suc (Suc (Suc (Suc 0))))"
  unfolding ts_parse_row_779_def by simp

text \<open>Lines 143349 to 143461.\<close>

definition ts_parse_row_780 :: parse_row where
  "ts_parse_row_780 =
    [(sym_ERR_assign_func_call, 7530), (sym_ERR_unexpected_this_in_path, 2372),
     (sym_ERR_unexpected_super_in_path, 2372), (sym_ERR_fb_variables_after_method, 1770),
     (sym_ERR_var_access_not_allowed, 3160), (sym_ERR_var_config_not_allowed, 3160),
     (sym_ERR_var_global_not_allowed, 3160), (sym_ERR_method_decl_in_body, 3150),
     (sym_extern_pragma, 7490), (sym_wasm_pragma, 3150), (sym_warn_pragma, 7490),
     (sym_allow_pragma, 3140), (sym_test_pragma, 7490), (sym_once_pragma, 7490),
     (sym_must_call_pragma, 7490), (sym_export_pragma, 7490), (sym_pou_pragma, 7194),
     (sym_direct_variable, 7675), (sym_deref_expression, 2373), (sym_variable, 7599),
     (sym_var_access, 2373), (sym_in_out_decls, 3160), (sym_var_decls, 3160),
     (sym_retain_var_decls, 3160), (sym_temp_var_decls, 3160), (sym_external_var_decls, 3160),
     (sym_global_var_decls, 2947), (sym_loc_partly_var_decl, 3160), (sym__fb_variables, 2347),
     (sym_fb_input_decls, 3160), (sym_fb_output_decls, 3160), (sym_no_retain_var_decls, 3160),
     (sym_fb_body, 8247), (sym_method_decl, 305), (sym_prog_access_decls, 3043), (sym_SFC, 7970),
     (sym_SFC_network, 7612), (sym_initial_step, 7439), (sym_config_init, 3047),
     (sym_variable_access, 7530), (sym_func_call, 2961), (sym_stmt_list, 7970), (sym__stmt, 2024),
     (sym_assign, 3150), (sym_if_stmt, 3150), (sym_case_stmt, 3150), (sym_for_stmt, 3150),
     (sym_while_stmt, 3150), (sym_repeat_stmt, 3150), (sym_raise_stmt, 3150), (sym_try_stmt, 3150),
     (sym_ERR_clause_outside_try, 3150), (sym_begin_path_expression, 2943), (sym_invocation, 2934),
     (sym_any_invocation, 2935), (sym_this_invocation, 2641), (sym_super_invocation, 2641),
     (sym_super_body_invocation, 2935), (sym_path_expression, 2627), (sym_field_expression, 2373),
     (sym_index_expression, 2373), (sym_ladder_diagram, 7970), (sym_fb_diagram, 7970),
     (aux_sym_ERR_fb_variables_after_method_repeat1, 2347), (aux_sym_func_decl_repeat1, 7194),
     (aux_sym_fb_decl_repeat3, 305), (aux_sym_SFC_repeat1, 7612), (aux_sym_stmt_list_repeat1, 2024),
     (aux_sym_ladder_diagram_repeat1, 8009), (aux_sym_fb_diagram_repeat1, 8013),
     (sym_identifier, 298), (aux_sym_ERR_unexpected_this_in_path_token1, 304),
     (aux_sym_ERR_unexpected_super_in_path_token1, 306), (sym_line_comment, 3),
     (anon_sym_LBRACE, 308), (aux_sym_test_pragma_token1, 9), (aux_sym_once_pragma_token1, 11),
     (aux_sym_must_call_pragma_token1, 13), (aux_sym_export_pragma_token1, 15),
     (anon_sym_SEMI, 310), (anon_sym_PERCENT, 312), (aux_sym_input_decls_token1, 314),
     (aux_sym_output_decls_token1, 316), (aux_sym_in_out_decls_token1, 318),
     (aux_sym_var_decls_token1, 320), (aux_sym_temp_var_decls_token1, 322),
     (aux_sym_external_var_decls_token1, 324), (aux_sym_global_var_decls_token1, 326),
     (aux_sym_fb_decl_token4, 1890), (aux_sym_method_decl_token1, 330),
     (aux_sym_prog_access_decls_token1, 332), (aux_sym_initial_step_token1, 334),
     (aux_sym_config_init_token1, 336), (aux_sym__stmt_token1, 340), (aux_sym__stmt_token2, 340),
     (aux_sym__stmt_token3, 340), (aux_sym_if_stmt_token1, 342), (aux_sym_case_stmt_token1, 344),
     (aux_sym_for_stmt_token1, 346), (aux_sym_while_stmt_token1, 348),
     (aux_sym_repeat_stmt_token1, 350), (aux_sym_raise_stmt_token1, 352),
     (aux_sym_try_stmt_token1, 354), (aux_sym_try_stmt_token2, 356),
     (aux_sym_catch_clause_token1, 356), (aux_sym_finally_clause_token1, 356), (sym_ld_rung, 358),
     (sym_fbd_network, 360), (sym_c_style_comment, 3), (sym_pascal_style_comment, 3),
     (sym_pragma, 3)]"

lemma ts_parse_row_780_scan: "row_scan tokens_63_2 0 ts_parse_row_780 = Some (Suc (Suc (Suc (Suc 0))))"
  unfolding ts_parse_row_780_def by simp

text \<open>Lines 143462 to 143574.\<close>

definition ts_parse_row_781 :: parse_row where
  "ts_parse_row_781 =
    [(sym_ERR_assign_func_call, 7530), (sym_ERR_unexpected_this_in_path, 2372),
     (sym_ERR_unexpected_super_in_path, 2372), (sym_ERR_fb_variables_after_method, 1863),
     (sym_ERR_var_access_not_allowed, 3160), (sym_ERR_var_config_not_allowed, 3160),
     (sym_ERR_var_global_not_allowed, 3160), (sym_ERR_method_decl_in_body, 3150),
     (sym_extern_pragma, 7490), (sym_wasm_pragma, 3150), (sym_warn_pragma, 7490),
     (sym_allow_pragma, 3140), (sym_test_pragma, 7490), (sym_once_pragma, 7490),
     (sym_must_call_pragma, 7490), (sym_export_pragma, 7490), (sym_pou_pragma, 7194),
     (sym_direct_variable, 7675), (sym_deref_expression, 2373), (sym_variable, 7599),
     (sym_var_access, 2373), (sym_in_out_decls, 3160), (sym_var_decls, 3160),
     (sym_retain_var_decls, 3160), (sym_temp_var_decls, 3160), (sym_external_var_decls, 3160),
     (sym_global_var_decls, 2947), (sym_loc_partly_var_decl, 3160), (sym__fb_variables, 2343),
     (sym_fb_input_decls, 3160), (sym_fb_output_decls, 3160), (sym_no_retain_var_decls, 3160),
     (sym_fb_body, 9579), (sym_method_decl, 2549), (sym_prog_access_decls, 3043), (sym_SFC, 7970),
     (sym_SFC_network, 7612), (sym_initial_step, 7439), (sym_config_init, 3047),
     (sym_variable_access, 7530), (sym_func_call, 2961), (sym_stmt_list, 7970), (sym__stmt, 2024),
     (sym_assign, 3150), (sym_if_stmt, 3150), (sym_case_stmt, 3150), (sym_for_stmt, 3150),
     (sym_while_stmt, 3150), (sym_repeat_stmt, 3150), (sym_raise_stmt, 3150), (sym_try_stmt, 3150),
     (sym_ERR_clause_outside_try, 3150), (sym_begin_path_expression, 2943), (sym_invocation, 2934),
     (sym_any_invocation, 2935), (sym_this_invocation, 2641), (sym_super_invocation, 2641),
     (sym_super_body_invocation, 2935), (sym_path_expression, 2627), (sym_field_expression, 2373),
     (sym_index_expression, 2373), (sym_ladder_diagram, 7970), (sym_fb_diagram, 7970),
     (aux_sym_ERR_fb_variables_after_method_repeat1, 2343), (aux_sym_func_decl_repeat1, 7194),
     (aux_sym_fb_decl_repeat3, 2549), (aux_sym_SFC_repeat1, 7612),
     (aux_sym_stmt_list_repeat1, 2024), (aux_sym_ladder_diagram_repeat1, 8009),
     (aux_sym_fb_diagram_repeat1, 8013), (sym_identifier, 298),
     (aux_sym_ERR_unexpected_this_in_path_token1, 304),
     (aux_sym_ERR_unexpected_super_in_path_token1, 306), (sym_line_comment, 3),
     (anon_sym_LBRACE, 308), (aux_sym_test_pragma_token1, 9), (aux_sym_once_pragma_token1, 11),
     (aux_sym_must_call_pragma_token1, 13), (aux_sym_export_pragma_token1, 15),
     (anon_sym_SEMI, 310), (anon_sym_PERCENT, 312), (aux_sym_input_decls_token1, 314),
     (aux_sym_output_decls_token1, 316), (aux_sym_in_out_decls_token1, 318),
     (aux_sym_var_decls_token1, 320), (aux_sym_temp_var_decls_token1, 322),
     (aux_sym_external_var_decls_token1, 324), (aux_sym_global_var_decls_token1, 326),
     (aux_sym_fb_decl_token4, 1892), (aux_sym_method_decl_token1, 330),
     (aux_sym_prog_access_decls_token1, 332), (aux_sym_initial_step_token1, 334),
     (aux_sym_config_init_token1, 336), (aux_sym__stmt_token1, 340), (aux_sym__stmt_token2, 340),
     (aux_sym__stmt_token3, 340), (aux_sym_if_stmt_token1, 342), (aux_sym_case_stmt_token1, 344),
     (aux_sym_for_stmt_token1, 346), (aux_sym_while_stmt_token1, 348),
     (aux_sym_repeat_stmt_token1, 350), (aux_sym_raise_stmt_token1, 352),
     (aux_sym_try_stmt_token1, 354), (aux_sym_try_stmt_token2, 356),
     (aux_sym_catch_clause_token1, 356), (aux_sym_finally_clause_token1, 356), (sym_ld_rung, 358),
     (sym_fbd_network, 360), (sym_c_style_comment, 3), (sym_pascal_style_comment, 3),
     (sym_pragma, 3)]"

lemma ts_parse_row_781_scan: "row_scan tokens_63_2 0 ts_parse_row_781 = Some (Suc (Suc (Suc (Suc 0))))"
  unfolding ts_parse_row_781_def by simp

text \<open>Lines 143575 to 143687.\<close>

definition ts_parse_row_782 :: parse_row where
  "ts_parse_row_782 =
    [(sym_ERR_assign_func_call, 7530), (sym_ERR_unexpected_this_in_path, 2372),
     (sym_ERR_unexpected_super_in_path, 2372), (sym_ERR_fb_variables_after_method, 1864),
     (sym_ERR_var_access_not_allowed, 3160), (sym_ERR_var_config_not_allowed, 3160),
     (sym_ERR_var_global_not_allowed, 3160), (sym_ERR_method_decl_in_body, 3150),
     (sym_extern_pragma, 7490), (sym_wasm_pragma, 3150), (sym_warn_pragma, 7490),
     (sym_allow_pragma, 3140), (sym_test_pragma, 7490), (sym_once_pragma, 7490),
     (sym_must_call_pragma, 7490), (sym_export_pragma, 7490), (sym_pou_pragma, 7194),
     (sym_direct_variable, 7675), (sym_deref_expression, 2373), (sym_variable, 7599),
     (sym_var_access, 2373), (sym_in_out_decls, 3160), (sym_var_decls, 3160),
     (sym_retain_var_decls, 3160), (sym_temp_var_decls, 3160), (sym_external_var_decls, 3160),
     (sym_global_var_decls, 2947), (sym_loc_partly_var_decl, 3160), (sym__fb_variables, 2347),
     (sym_fb_input_decls, 3160), (sym_fb_output_decls, 3160), (sym_no_retain_var_decls, 3160),
     (sym_fb_body, 9613), (sym_method_decl, 401), (sym_prog_access_decls, 3043), (sym_SFC, 7970),
     (sym_SFC_network, 7612), (sym_initial_step, 7439), (sym_config_init, 3047),
     (sym_variable_access, 7530), (sym_func_call, 2961), (sym_stmt_list, 7970), (sym__stmt, 2024),
     (sym_assign, 3150), (sym_if_stmt, 3150), (sym_case_stmt, 3150), (sym_for_stmt, 3150),
     (sym_while_stmt, 3150), (sym_repeat_stmt, 3150), (sym_raise_stmt, 3150), (sym_try_stmt, 3150),
     (sym_ERR_clause_outside_try, 3150), (sym_begin_path_expression, 2943), (sym_invocation, 2934),
     (sym_any_invocation, 2935), (sym_this_invocation, 2641), (sym_super_invocation, 2641),
     (sym_super_body_invocation, 2935), (sym_path_expression, 2627), (sym_field_expression, 2373),
     (sym_index_expression, 2373), (sym_ladder_diagram, 7970), (sym_fb_diagram, 7970),
     (aux_sym_ERR_fb_variables_after_method_repeat1, 2347), (aux_sym_func_decl_repeat1, 7194),
     (aux_sym_fb_decl_repeat3, 401), (aux_sym_SFC_repeat1, 7612), (aux_sym_stmt_list_repeat1, 2024),
     (aux_sym_ladder_diagram_repeat1, 8009), (aux_sym_fb_diagram_repeat1, 8013),
     (sym_identifier, 298), (aux_sym_ERR_unexpected_this_in_path_token1, 304),
     (aux_sym_ERR_unexpected_super_in_path_token1, 306), (sym_line_comment, 3),
     (anon_sym_LBRACE, 308), (aux_sym_test_pragma_token1, 9), (aux_sym_once_pragma_token1, 11),
     (aux_sym_must_call_pragma_token1, 13), (aux_sym_export_pragma_token1, 15),
     (anon_sym_SEMI, 310), (anon_sym_PERCENT, 312), (aux_sym_input_decls_token1, 314),
     (aux_sym_output_decls_token1, 316), (aux_sym_in_out_decls_token1, 318),
     (aux_sym_var_decls_token1, 320), (aux_sym_temp_var_decls_token1, 322),
     (aux_sym_external_var_decls_token1, 324), (aux_sym_global_var_decls_token1, 326),
     (aux_sym_fb_decl_token4, 1894), (aux_sym_method_decl_token1, 330),
     (aux_sym_prog_access_decls_token1, 332), (aux_sym_initial_step_token1, 334),
     (aux_sym_config_init_token1, 336), (aux_sym__stmt_token1, 340), (aux_sym__stmt_token2, 340),
     (aux_sym__stmt_token3, 340), (aux_sym_if_stmt_token1, 342), (aux_sym_case_stmt_token1, 344),
     (aux_sym_for_stmt_token1, 346), (aux_sym_while_stmt_token1, 348),
     (aux_sym_repeat_stmt_token1, 350), (aux_sym_raise_stmt_token1, 352),
     (aux_sym_try_stmt_token1, 354), (aux_sym_try_stmt_token2, 356),
     (aux_sym_catch_clause_token1, 356), (aux_sym_finally_clause_token1, 356), (sym_ld_rung, 358),
     (sym_fbd_network, 360), (sym_c_style_comment, 3), (sym_pascal_style_comment, 3),
     (sym_pragma, 3)]"

lemma ts_parse_row_782_scan: "row_scan tokens_63_2 0 ts_parse_row_782 = Some (Suc (Suc (Suc (Suc 0))))"
  unfolding ts_parse_row_782_def by simp

text \<open>Lines 143688 to 143800.\<close>

definition ts_parse_row_783 :: parse_row where
  "ts_parse_row_783 =
    [(sym_ERR_assign_func_call, 7530), (sym_ERR_unexpected_this_in_path, 2372),
     (sym_ERR_unexpected_super_in_path, 2372), (sym_ERR_fb_variables_after_method, 1776),
     (sym_ERR_var_access_not_allowed, 3160), (sym_ERR_var_config_not_allowed, 3160),
     (sym_ERR_var_global_not_allowed, 3160), (sym_ERR_method_decl_in_body, 3150),
     (sym_extern_pragma, 7490), (sym_wasm_pragma, 3150), (sym_warn_pragma, 7490),
     (sym_allow_pragma, 3140), (sym_test_pragma, 7490), (sym_once_pragma, 7490),
     (sym_must_call_pragma, 7490), (sym_export_pragma, 7490), (sym_pou_pragma, 7194),
     (sym_direct_variable, 7675), (sym_deref_expression, 2373), (sym_variable, 7599),
     (sym_var_access, 2373), (sym_in_out_decls, 3160), (sym_var_decls, 3160),
     (sym_retain_var_decls, 3160), (sym_temp_var_decls, 3160), (sym_external_var_decls, 3160),
     (sym_global_var_decls, 2947), (sym_loc_partly_var_decl, 3160), (sym__fb_variables, 2343),
     (sym_fb_input_decls, 3160), (sym_fb_output_decls, 3160), (sym_no_retain_var_decls, 3160),
     (sym_fb_body, 8260), (sym_method_decl, 2549), (sym_prog_access_decls, 3043), (sym_SFC, 7970),
     (sym_SFC_network, 7612), (sym_initial_step, 7439), (sym_config_init, 3047),
     (sym_variable_access, 7530), (sym_func_call, 2961), (sym_stmt_list, 7970), (sym__stmt, 2024),
     (sym_assign, 3150), (sym_if_stmt, 3150), (sym_case_stmt, 3150), (sym_for_stmt, 3150),
     (sym_while_stmt, 3150), (sym_repeat_stmt, 3150), (sym_raise_stmt, 3150), (sym_try_stmt, 3150),
     (sym_ERR_clause_outside_try, 3150), (sym_begin_path_expression, 2943), (sym_invocation, 2934),
     (sym_any_invocation, 2935), (sym_this_invocation, 2641), (sym_super_invocation, 2641),
     (sym_super_body_invocation, 2935), (sym_path_expression, 2627), (sym_field_expression, 2373),
     (sym_index_expression, 2373), (sym_ladder_diagram, 7970), (sym_fb_diagram, 7970),
     (aux_sym_ERR_fb_variables_after_method_repeat1, 2343), (aux_sym_func_decl_repeat1, 7194),
     (aux_sym_fb_decl_repeat3, 2549), (aux_sym_SFC_repeat1, 7612),
     (aux_sym_stmt_list_repeat1, 2024), (aux_sym_ladder_diagram_repeat1, 8009),
     (aux_sym_fb_diagram_repeat1, 8013), (sym_identifier, 298),
     (aux_sym_ERR_unexpected_this_in_path_token1, 304),
     (aux_sym_ERR_unexpected_super_in_path_token1, 306), (sym_line_comment, 3),
     (anon_sym_LBRACE, 308), (aux_sym_test_pragma_token1, 9), (aux_sym_once_pragma_token1, 11),
     (aux_sym_must_call_pragma_token1, 13), (aux_sym_export_pragma_token1, 15),
     (anon_sym_SEMI, 310), (anon_sym_PERCENT, 312), (aux_sym_input_decls_token1, 314),
     (aux_sym_output_decls_token1, 316), (aux_sym_in_out_decls_token1, 318),
     (aux_sym_var_decls_token1, 320), (aux_sym_temp_var_decls_token1, 322),
     (aux_sym_external_var_decls_token1, 324), (aux_sym_global_var_decls_token1, 326),
     (aux_sym_fb_decl_token4, 1896), (aux_sym_method_decl_token1, 330),
     (aux_sym_prog_access_decls_token1, 332), (aux_sym_initial_step_token1, 334),
     (aux_sym_config_init_token1, 336), (aux_sym__stmt_token1, 340), (aux_sym__stmt_token2, 340),
     (aux_sym__stmt_token3, 340), (aux_sym_if_stmt_token1, 342), (aux_sym_case_stmt_token1, 344),
     (aux_sym_for_stmt_token1, 346), (aux_sym_while_stmt_token1, 348),
     (aux_sym_repeat_stmt_token1, 350), (aux_sym_raise_stmt_token1, 352),
     (aux_sym_try_stmt_token1, 354), (aux_sym_try_stmt_token2, 356),
     (aux_sym_catch_clause_token1, 356), (aux_sym_finally_clause_token1, 356), (sym_ld_rung, 358),
     (sym_fbd_network, 360), (sym_c_style_comment, 3), (sym_pascal_style_comment, 3),
     (sym_pragma, 3)]"

lemma ts_parse_row_783_scan: "row_scan tokens_63_2 0 ts_parse_row_783 = Some (Suc (Suc (Suc (Suc 0))))"
  unfolding ts_parse_row_783_def by simp

text \<open>Lines 143801 to 143913.\<close>

definition ts_parse_row_784 :: parse_row where
  "ts_parse_row_784 =
    [(sym_ERR_assign_func_call, 7530), (sym_ERR_unexpected_this_in_path, 2372),
     (sym_ERR_unexpected_super_in_path, 2372), (sym_ERR_fb_variables_after_method, 1777),
     (sym_ERR_var_access_not_allowed, 3160), (sym_ERR_var_config_not_allowed, 3160),
     (sym_ERR_var_global_not_allowed, 3160), (sym_ERR_method_decl_in_body, 3150),
     (sym_extern_pragma, 7490), (sym_wasm_pragma, 3150), (sym_warn_pragma, 7490),
     (sym_allow_pragma, 3140), (sym_test_pragma, 7490), (sym_once_pragma, 7490),
     (sym_must_call_pragma, 7490), (sym_export_pragma, 7490), (sym_pou_pragma, 7194),
     (sym_direct_variable, 7675), (sym_deref_expression, 2373), (sym_variable, 7599),
     (sym_var_access, 2373), (sym_in_out_decls, 3160), (sym_var_decls, 3160),
     (sym_retain_var_decls, 3160), (sym_temp_var_decls, 3160), (sym_external_var_decls, 3160),
     (sym_global_var_decls, 2947), (sym_loc_partly_var_decl, 3160), (sym__fb_variables, 2343),
     (sym_fb_input_decls, 3160), (sym_fb_output_decls, 3160), (sym_no_retain_var_decls, 3160),
     (sym_fb_body, 8271), (sym_method_decl, 2549), (sym_prog_access_decls, 3043), (sym_SFC, 7970),
     (sym_SFC_network, 7612), (sym_initial_step, 7439), (sym_config_init, 3047),
     (sym_variable_access, 7530), (sym_func_call, 2961), (sym_stmt_list, 7970), (sym__stmt, 2024),
     (sym_assign, 3150), (sym_if_stmt, 3150), (sym_case_stmt, 3150), (sym_for_stmt, 3150),
     (sym_while_stmt, 3150), (sym_repeat_stmt, 3150), (sym_raise_stmt, 3150), (sym_try_stmt, 3150),
     (sym_ERR_clause_outside_try, 3150), (sym_begin_path_expression, 2943), (sym_invocation, 2934),
     (sym_any_invocation, 2935), (sym_this_invocation, 2641), (sym_super_invocation, 2641),
     (sym_super_body_invocation, 2935), (sym_path_expression, 2627), (sym_field_expression, 2373),
     (sym_index_expression, 2373), (sym_ladder_diagram, 7970), (sym_fb_diagram, 7970),
     (aux_sym_ERR_fb_variables_after_method_repeat1, 2343), (aux_sym_func_decl_repeat1, 7194),
     (aux_sym_fb_decl_repeat3, 2549), (aux_sym_SFC_repeat1, 7612),
     (aux_sym_stmt_list_repeat1, 2024), (aux_sym_ladder_diagram_repeat1, 8009),
     (aux_sym_fb_diagram_repeat1, 8013), (sym_identifier, 298),
     (aux_sym_ERR_unexpected_this_in_path_token1, 304),
     (aux_sym_ERR_unexpected_super_in_path_token1, 306), (sym_line_comment, 3),
     (anon_sym_LBRACE, 308), (aux_sym_test_pragma_token1, 9), (aux_sym_once_pragma_token1, 11),
     (aux_sym_must_call_pragma_token1, 13), (aux_sym_export_pragma_token1, 15),
     (anon_sym_SEMI, 310), (anon_sym_PERCENT, 312), (aux_sym_input_decls_token1, 314),
     (aux_sym_output_decls_token1, 316), (aux_sym_in_out_decls_token1, 318),
     (aux_sym_var_decls_token1, 320), (aux_sym_temp_var_decls_token1, 322),
     (aux_sym_external_var_decls_token1, 324), (aux_sym_global_var_decls_token1, 326),
     (aux_sym_fb_decl_token4, 1898), (aux_sym_method_decl_token1, 330),
     (aux_sym_prog_access_decls_token1, 332), (aux_sym_initial_step_token1, 334),
     (aux_sym_config_init_token1, 336), (aux_sym__stmt_token1, 340), (aux_sym__stmt_token2, 340),
     (aux_sym__stmt_token3, 340), (aux_sym_if_stmt_token1, 342), (aux_sym_case_stmt_token1, 344),
     (aux_sym_for_stmt_token1, 346), (aux_sym_while_stmt_token1, 348),
     (aux_sym_repeat_stmt_token1, 350), (aux_sym_raise_stmt_token1, 352),
     (aux_sym_try_stmt_token1, 354), (aux_sym_try_stmt_token2, 356),
     (aux_sym_catch_clause_token1, 356), (aux_sym_finally_clause_token1, 356), (sym_ld_rung, 358),
     (sym_fbd_network, 360), (sym_c_style_comment, 3), (sym_pascal_style_comment, 3),
     (sym_pragma, 3)]"

lemma ts_parse_row_784_scan: "row_scan tokens_63_2 0 ts_parse_row_784 = Some (Suc (Suc (Suc (Suc 0))))"
  unfolding ts_parse_row_784_def by simp

text \<open>Lines 143914 to 144026.\<close>

definition ts_parse_row_785 :: parse_row where
  "ts_parse_row_785 =
    [(sym_ERR_assign_func_call, 7530), (sym_ERR_unexpected_this_in_path, 2372),
     (sym_ERR_unexpected_super_in_path, 2372), (sym_ERR_fb_variables_after_method, 1778),
     (sym_ERR_var_access_not_allowed, 3160), (sym_ERR_var_config_not_allowed, 3160),
     (sym_ERR_var_global_not_allowed, 3160), (sym_ERR_method_decl_in_body, 3150),
     (sym_extern_pragma, 7490), (sym_wasm_pragma, 3150), (sym_warn_pragma, 7490),
     (sym_allow_pragma, 3140), (sym_test_pragma, 7490), (sym_once_pragma, 7490),
     (sym_must_call_pragma, 7490), (sym_export_pragma, 7490), (sym_pou_pragma, 7194),
     (sym_direct_variable, 7675), (sym_deref_expression, 2373), (sym_variable, 7599),
     (sym_var_access, 2373), (sym_in_out_decls, 3160), (sym_var_decls, 3160),
     (sym_retain_var_decls, 3160), (sym_temp_var_decls, 3160), (sym_external_var_decls, 3160),
     (sym_global_var_decls, 2947), (sym_loc_partly_var_decl, 3160), (sym__fb_variables, 2343),
     (sym_fb_input_decls, 3160), (sym_fb_output_decls, 3160), (sym_no_retain_var_decls, 3160),
     (sym_fb_body, 8281), (sym_method_decl, 2549), (sym_prog_access_decls, 3043), (sym_SFC, 7970),
     (sym_SFC_network, 7612), (sym_initial_step, 7439), (sym_config_init, 3047),
     (sym_variable_access, 7530), (sym_func_call, 2961), (sym_stmt_list, 7970), (sym__stmt, 2024),
     (sym_assign, 3150), (sym_if_stmt, 3150), (sym_case_stmt, 3150), (sym_for_stmt, 3150),
     (sym_while_stmt, 3150), (sym_repeat_stmt, 3150), (sym_raise_stmt, 3150), (sym_try_stmt, 3150),
     (sym_ERR_clause_outside_try, 3150), (sym_begin_path_expression, 2943), (sym_invocation, 2934),
     (sym_any_invocation, 2935), (sym_this_invocation, 2641), (sym_super_invocation, 2641),
     (sym_super_body_invocation, 2935), (sym_path_expression, 2627), (sym_field_expression, 2373),
     (sym_index_expression, 2373), (sym_ladder_diagram, 7970), (sym_fb_diagram, 7970),
     (aux_sym_ERR_fb_variables_after_method_repeat1, 2343), (aux_sym_func_decl_repeat1, 7194),
     (aux_sym_fb_decl_repeat3, 2549), (aux_sym_SFC_repeat1, 7612),
     (aux_sym_stmt_list_repeat1, 2024), (aux_sym_ladder_diagram_repeat1, 8009),
     (aux_sym_fb_diagram_repeat1, 8013), (sym_identifier, 298),
     (aux_sym_ERR_unexpected_this_in_path_token1, 304),
     (aux_sym_ERR_unexpected_super_in_path_token1, 306), (sym_line_comment, 3),
     (anon_sym_LBRACE, 308), (aux_sym_test_pragma_token1, 9), (aux_sym_once_pragma_token1, 11),
     (aux_sym_must_call_pragma_token1, 13), (aux_sym_export_pragma_token1, 15),
     (anon_sym_SEMI, 310), (anon_sym_PERCENT, 312), (aux_sym_input_decls_token1, 314),
     (aux_sym_output_decls_token1, 316), (aux_sym_in_out_decls_token1, 318),
     (aux_sym_var_decls_token1, 320), (aux_sym_temp_var_decls_token1, 322),
     (aux_sym_external_var_decls_token1, 324), (aux_sym_global_var_decls_token1, 326),
     (aux_sym_fb_decl_token4, 1900), (aux_sym_method_decl_token1, 330),
     (aux_sym_prog_access_decls_token1, 332), (aux_sym_initial_step_token1, 334),
     (aux_sym_config_init_token1, 336), (aux_sym__stmt_token1, 340), (aux_sym__stmt_token2, 340),
     (aux_sym__stmt_token3, 340), (aux_sym_if_stmt_token1, 342), (aux_sym_case_stmt_token1, 344),
     (aux_sym_for_stmt_token1, 346), (aux_sym_while_stmt_token1, 348),
     (aux_sym_repeat_stmt_token1, 350), (aux_sym_raise_stmt_token1, 352),
     (aux_sym_try_stmt_token1, 354), (aux_sym_try_stmt_token2, 356),
     (aux_sym_catch_clause_token1, 356), (aux_sym_finally_clause_token1, 356), (sym_ld_rung, 358),
     (sym_fbd_network, 360), (sym_c_style_comment, 3), (sym_pascal_style_comment, 3),
     (sym_pragma, 3)]"

lemma ts_parse_row_785_scan: "row_scan tokens_63_2 0 ts_parse_row_785 = Some (Suc (Suc (Suc (Suc 0))))"
  unfolding ts_parse_row_785_def by simp

text \<open>Lines 144027 to 144139.\<close>

definition ts_parse_row_786 :: parse_row where
  "ts_parse_row_786 =
    [(sym_ERR_assign_func_call, 7530), (sym_ERR_unexpected_this_in_path, 2372),
     (sym_ERR_unexpected_super_in_path, 2372), (sym_ERR_fb_variables_after_method, 1779),
     (sym_ERR_var_access_not_allowed, 3160), (sym_ERR_var_config_not_allowed, 3160),
     (sym_ERR_var_global_not_allowed, 3160), (sym_ERR_method_decl_in_body, 3150),
     (sym_extern_pragma, 7490), (sym_wasm_pragma, 3150), (sym_warn_pragma, 7490),
     (sym_allow_pragma, 3140), (sym_test_pragma, 7490), (sym_once_pragma, 7490),
     (sym_must_call_pragma, 7490), (sym_export_pragma, 7490), (sym_pou_pragma, 7194),
     (sym_direct_variable, 7675), (sym_deref_expression, 2373), (sym_variable, 7599),
     (sym_var_access, 2373), (sym_in_out_decls, 3160), (sym_var_decls, 3160),
     (sym_retain_var_decls, 3160), (sym_temp_var_decls, 3160), (sym_external_var_decls, 3160),
     (sym_global_var_decls, 2947), (sym_loc_partly_var_decl, 3160), (sym__fb_variables, 2347),
     (sym_fb_input_decls, 3160), (sym_fb_output_decls, 3160), (sym_no_retain_var_decls, 3160),
     (sym_fb_body, 8287), (sym_method_decl, 831), (sym_prog_access_decls, 3043), (sym_SFC, 7970),
     (sym_SFC_network, 7612), (sym_initial_step, 7439), (sym_config_init, 3047),
     (sym_variable_access, 7530), (sym_func_call, 2961), (sym_stmt_list, 7970), (sym__stmt, 2024),
     (sym_assign, 3150), (sym_if_stmt, 3150), (sym_case_stmt, 3150), (sym_for_stmt, 3150),
     (sym_while_stmt, 3150), (sym_repeat_stmt, 3150), (sym_raise_stmt, 3150), (sym_try_stmt, 3150),
     (sym_ERR_clause_outside_try, 3150), (sym_begin_path_expression, 2943), (sym_invocation, 2934),
     (sym_any_invocation, 2935), (sym_this_invocation, 2641), (sym_super_invocation, 2641),
     (sym_super_body_invocation, 2935), (sym_path_expression, 2627), (sym_field_expression, 2373),
     (sym_index_expression, 2373), (sym_ladder_diagram, 7970), (sym_fb_diagram, 7970),
     (aux_sym_ERR_fb_variables_after_method_repeat1, 2347), (aux_sym_func_decl_repeat1, 7194),
     (aux_sym_fb_decl_repeat3, 831), (aux_sym_SFC_repeat1, 7612), (aux_sym_stmt_list_repeat1, 2024),
     (aux_sym_ladder_diagram_repeat1, 8009), (aux_sym_fb_diagram_repeat1, 8013),
     (sym_identifier, 298), (aux_sym_ERR_unexpected_this_in_path_token1, 304),
     (aux_sym_ERR_unexpected_super_in_path_token1, 306), (sym_line_comment, 3),
     (anon_sym_LBRACE, 308), (aux_sym_test_pragma_token1, 9), (aux_sym_once_pragma_token1, 11),
     (aux_sym_must_call_pragma_token1, 13), (aux_sym_export_pragma_token1, 15),
     (anon_sym_SEMI, 310), (anon_sym_PERCENT, 312), (aux_sym_input_decls_token1, 314),
     (aux_sym_output_decls_token1, 316), (aux_sym_in_out_decls_token1, 318),
     (aux_sym_var_decls_token1, 320), (aux_sym_temp_var_decls_token1, 322),
     (aux_sym_external_var_decls_token1, 324), (aux_sym_global_var_decls_token1, 326),
     (aux_sym_fb_decl_token4, 1902), (aux_sym_method_decl_token1, 330),
     (aux_sym_prog_access_decls_token1, 332), (aux_sym_initial_step_token1, 334),
     (aux_sym_config_init_token1, 336), (aux_sym__stmt_token1, 340), (aux_sym__stmt_token2, 340),
     (aux_sym__stmt_token3, 340), (aux_sym_if_stmt_token1, 342), (aux_sym_case_stmt_token1, 344),
     (aux_sym_for_stmt_token1, 346), (aux_sym_while_stmt_token1, 348),
     (aux_sym_repeat_stmt_token1, 350), (aux_sym_raise_stmt_token1, 352),
     (aux_sym_try_stmt_token1, 354), (aux_sym_try_stmt_token2, 356),
     (aux_sym_catch_clause_token1, 356), (aux_sym_finally_clause_token1, 356), (sym_ld_rung, 358),
     (sym_fbd_network, 360), (sym_c_style_comment, 3), (sym_pascal_style_comment, 3),
     (sym_pragma, 3)]"

lemma ts_parse_row_786_scan: "row_scan tokens_63_2 0 ts_parse_row_786 = Some (Suc (Suc (Suc (Suc 0))))"
  unfolding ts_parse_row_786_def by simp

text \<open>Lines 144140 to 144252.\<close>

definition ts_parse_row_787 :: parse_row where
  "ts_parse_row_787 =
    [(sym_ERR_assign_func_call, 7530), (sym_ERR_unexpected_this_in_path, 2372),
     (sym_ERR_unexpected_super_in_path, 2372), (sym_ERR_fb_variables_after_method, 1781),
     (sym_ERR_var_access_not_allowed, 3160), (sym_ERR_var_config_not_allowed, 3160),
     (sym_ERR_var_global_not_allowed, 3160), (sym_ERR_method_decl_in_body, 3150),
     (sym_extern_pragma, 7490), (sym_wasm_pragma, 3150), (sym_warn_pragma, 7490),
     (sym_allow_pragma, 3140), (sym_test_pragma, 7490), (sym_once_pragma, 7490),
     (sym_must_call_pragma, 7490), (sym_export_pragma, 7490), (sym_pou_pragma, 7194),
     (sym_direct_variable, 7675), (sym_deref_expression, 2373), (sym_variable, 7599),
     (sym_var_access, 2373), (sym_in_out_decls, 3160), (sym_var_decls, 3160),
     (sym_retain_var_decls, 3160), (sym_temp_var_decls, 3160), (sym_external_var_decls, 3160),
     (sym_global_var_decls, 2947), (sym_loc_partly_var_decl, 3160), (sym__fb_variables, 2343),
     (sym_fb_input_decls, 3160), (sym_fb_output_decls, 3160), (sym_no_retain_var_decls, 3160),
     (sym_fb_body, 8291), (sym_method_decl, 2549), (sym_prog_access_decls, 3043), (sym_SFC, 7970),
     (sym_SFC_network, 7612), (sym_initial_step, 7439), (sym_config_init, 3047),
     (sym_variable_access, 7530), (sym_func_call, 2961), (sym_stmt_list, 7970), (sym__stmt, 2024),
     (sym_assign, 3150), (sym_if_stmt, 3150), (sym_case_stmt, 3150), (sym_for_stmt, 3150),
     (sym_while_stmt, 3150), (sym_repeat_stmt, 3150), (sym_raise_stmt, 3150), (sym_try_stmt, 3150),
     (sym_ERR_clause_outside_try, 3150), (sym_begin_path_expression, 2943), (sym_invocation, 2934),
     (sym_any_invocation, 2935), (sym_this_invocation, 2641), (sym_super_invocation, 2641),
     (sym_super_body_invocation, 2935), (sym_path_expression, 2627), (sym_field_expression, 2373),
     (sym_index_expression, 2373), (sym_ladder_diagram, 7970), (sym_fb_diagram, 7970),
     (aux_sym_ERR_fb_variables_after_method_repeat1, 2343), (aux_sym_func_decl_repeat1, 7194),
     (aux_sym_fb_decl_repeat3, 2549), (aux_sym_SFC_repeat1, 7612),
     (aux_sym_stmt_list_repeat1, 2024), (aux_sym_ladder_diagram_repeat1, 8009),
     (aux_sym_fb_diagram_repeat1, 8013), (sym_identifier, 298),
     (aux_sym_ERR_unexpected_this_in_path_token1, 304),
     (aux_sym_ERR_unexpected_super_in_path_token1, 306), (sym_line_comment, 3),
     (anon_sym_LBRACE, 308), (aux_sym_test_pragma_token1, 9), (aux_sym_once_pragma_token1, 11),
     (aux_sym_must_call_pragma_token1, 13), (aux_sym_export_pragma_token1, 15),
     (anon_sym_SEMI, 310), (anon_sym_PERCENT, 312), (aux_sym_input_decls_token1, 314),
     (aux_sym_output_decls_token1, 316), (aux_sym_in_out_decls_token1, 318),
     (aux_sym_var_decls_token1, 320), (aux_sym_temp_var_decls_token1, 322),
     (aux_sym_external_var_decls_token1, 324), (aux_sym_global_var_decls_token1, 326),
     (aux_sym_fb_decl_token4, 1904), (aux_sym_method_decl_token1, 330),
     (aux_sym_prog_access_decls_token1, 332), (aux_sym_initial_step_token1, 334),
     (aux_sym_config_init_token1, 336), (aux_sym__stmt_token1, 340), (aux_sym__stmt_token2, 340),
     (aux_sym__stmt_token3, 340), (aux_sym_if_stmt_token1, 342), (aux_sym_case_stmt_token1, 344),
     (aux_sym_for_stmt_token1, 346), (aux_sym_while_stmt_token1, 348),
     (aux_sym_repeat_stmt_token1, 350), (aux_sym_raise_stmt_token1, 352),
     (aux_sym_try_stmt_token1, 354), (aux_sym_try_stmt_token2, 356),
     (aux_sym_catch_clause_token1, 356), (aux_sym_finally_clause_token1, 356), (sym_ld_rung, 358),
     (sym_fbd_network, 360), (sym_c_style_comment, 3), (sym_pascal_style_comment, 3),
     (sym_pragma, 3)]"

lemma ts_parse_row_787_scan: "row_scan tokens_63_2 0 ts_parse_row_787 = Some (Suc (Suc (Suc (Suc 0))))"
  unfolding ts_parse_row_787_def by simp

text \<open>Lines 144253 to 144365.\<close>

definition ts_parse_row_788 :: parse_row where
  "ts_parse_row_788 =
    [(sym_ERR_assign_func_call, 7530), (sym_ERR_unexpected_this_in_path, 2372),
     (sym_ERR_unexpected_super_in_path, 2372), (sym_ERR_fb_variables_after_method, 1782),
     (sym_ERR_var_access_not_allowed, 3160), (sym_ERR_var_config_not_allowed, 3160),
     (sym_ERR_var_global_not_allowed, 3160), (sym_ERR_method_decl_in_body, 3150),
     (sym_extern_pragma, 7490), (sym_wasm_pragma, 3150), (sym_warn_pragma, 7490),
     (sym_allow_pragma, 3140), (sym_test_pragma, 7490), (sym_once_pragma, 7490),
     (sym_must_call_pragma, 7490), (sym_export_pragma, 7490), (sym_pou_pragma, 7194),
     (sym_direct_variable, 7675), (sym_deref_expression, 2373), (sym_variable, 7599),
     (sym_var_access, 2373), (sym_in_out_decls, 3160), (sym_var_decls, 3160),
     (sym_retain_var_decls, 3160), (sym_temp_var_decls, 3160), (sym_external_var_decls, 3160),
     (sym_global_var_decls, 2947), (sym_loc_partly_var_decl, 3160), (sym__fb_variables, 2343),
     (sym_fb_input_decls, 3160), (sym_fb_output_decls, 3160), (sym_no_retain_var_decls, 3160),
     (sym_fb_body, 8306), (sym_method_decl, 2549), (sym_prog_access_decls, 3043), (sym_SFC, 7970),
     (sym_SFC_network, 7612), (sym_initial_step, 7439), (sym_config_init, 3047),
     (sym_variable_access, 7530), (sym_func_call, 2961), (sym_stmt_list, 7970), (sym__stmt, 2024),
     (sym_assign, 3150), (sym_if_stmt, 3150), (sym_case_stmt, 3150), (sym_for_stmt, 3150),
     (sym_while_stmt, 3150), (sym_repeat_stmt, 3150), (sym_raise_stmt, 3150), (sym_try_stmt, 3150),
     (sym_ERR_clause_outside_try, 3150), (sym_begin_path_expression, 2943), (sym_invocation, 2934),
     (sym_any_invocation, 2935), (sym_this_invocation, 2641), (sym_super_invocation, 2641),
     (sym_super_body_invocation, 2935), (sym_path_expression, 2627), (sym_field_expression, 2373),
     (sym_index_expression, 2373), (sym_ladder_diagram, 7970), (sym_fb_diagram, 7970),
     (aux_sym_ERR_fb_variables_after_method_repeat1, 2343), (aux_sym_func_decl_repeat1, 7194),
     (aux_sym_fb_decl_repeat3, 2549), (aux_sym_SFC_repeat1, 7612),
     (aux_sym_stmt_list_repeat1, 2024), (aux_sym_ladder_diagram_repeat1, 8009),
     (aux_sym_fb_diagram_repeat1, 8013), (sym_identifier, 298),
     (aux_sym_ERR_unexpected_this_in_path_token1, 304),
     (aux_sym_ERR_unexpected_super_in_path_token1, 306), (sym_line_comment, 3),
     (anon_sym_LBRACE, 308), (aux_sym_test_pragma_token1, 9), (aux_sym_once_pragma_token1, 11),
     (aux_sym_must_call_pragma_token1, 13), (aux_sym_export_pragma_token1, 15),
     (anon_sym_SEMI, 310), (anon_sym_PERCENT, 312), (aux_sym_input_decls_token1, 314),
     (aux_sym_output_decls_token1, 316), (aux_sym_in_out_decls_token1, 318),
     (aux_sym_var_decls_token1, 320), (aux_sym_temp_var_decls_token1, 322),
     (aux_sym_external_var_decls_token1, 324), (aux_sym_global_var_decls_token1, 326),
     (aux_sym_fb_decl_token4, 1906), (aux_sym_method_decl_token1, 330),
     (aux_sym_prog_access_decls_token1, 332), (aux_sym_initial_step_token1, 334),
     (aux_sym_config_init_token1, 336), (aux_sym__stmt_token1, 340), (aux_sym__stmt_token2, 340),
     (aux_sym__stmt_token3, 340), (aux_sym_if_stmt_token1, 342), (aux_sym_case_stmt_token1, 344),
     (aux_sym_for_stmt_token1, 346), (aux_sym_while_stmt_token1, 348),
     (aux_sym_repeat_stmt_token1, 350), (aux_sym_raise_stmt_token1, 352),
     (aux_sym_try_stmt_token1, 354), (aux_sym_try_stmt_token2, 356),
     (aux_sym_catch_clause_token1, 356), (aux_sym_finally_clause_token1, 356), (sym_ld_rung, 358),
     (sym_fbd_network, 360), (sym_c_style_comment, 3), (sym_pascal_style_comment, 3),
     (sym_pragma, 3)]"

lemma ts_parse_row_788_scan: "row_scan tokens_63_2 0 ts_parse_row_788 = Some (Suc (Suc (Suc (Suc 0))))"
  unfolding ts_parse_row_788_def by simp

text \<open>Lines 144366 to 144478.\<close>

definition ts_parse_row_789 :: parse_row where
  "ts_parse_row_789 =
    [(sym_ERR_assign_func_call, 7530), (sym_ERR_unexpected_this_in_path, 2372),
     (sym_ERR_unexpected_super_in_path, 2372), (sym_ERR_fb_variables_after_method, 1783),
     (sym_ERR_var_access_not_allowed, 3160), (sym_ERR_var_config_not_allowed, 3160),
     (sym_ERR_var_global_not_allowed, 3160), (sym_ERR_method_decl_in_body, 3150),
     (sym_extern_pragma, 7490), (sym_wasm_pragma, 3150), (sym_warn_pragma, 7490),
     (sym_allow_pragma, 3140), (sym_test_pragma, 7490), (sym_once_pragma, 7490),
     (sym_must_call_pragma, 7490), (sym_export_pragma, 7490), (sym_pou_pragma, 7194),
     (sym_direct_variable, 7675), (sym_deref_expression, 2373), (sym_variable, 7599),
     (sym_var_access, 2373), (sym_in_out_decls, 3160), (sym_var_decls, 3160),
     (sym_retain_var_decls, 3160), (sym_temp_var_decls, 3160), (sym_external_var_decls, 3160),
     (sym_global_var_decls, 2947), (sym_loc_partly_var_decl, 3160), (sym__fb_variables, 2343),
     (sym_fb_input_decls, 3160), (sym_fb_output_decls, 3160), (sym_no_retain_var_decls, 3160),
     (sym_fb_body, 8316), (sym_method_decl, 2549), (sym_prog_access_decls, 3043), (sym_SFC, 7970),
     (sym_SFC_network, 7612), (sym_initial_step, 7439), (sym_config_init, 3047),
     (sym_variable_access, 7530), (sym_func_call, 2961), (sym_stmt_list, 7970), (sym__stmt, 2024),
     (sym_assign, 3150), (sym_if_stmt, 3150), (sym_case_stmt, 3150), (sym_for_stmt, 3150),
     (sym_while_stmt, 3150), (sym_repeat_stmt, 3150), (sym_raise_stmt, 3150), (sym_try_stmt, 3150),
     (sym_ERR_clause_outside_try, 3150), (sym_begin_path_expression, 2943), (sym_invocation, 2934),
     (sym_any_invocation, 2935), (sym_this_invocation, 2641), (sym_super_invocation, 2641),
     (sym_super_body_invocation, 2935), (sym_path_expression, 2627), (sym_field_expression, 2373),
     (sym_index_expression, 2373), (sym_ladder_diagram, 7970), (sym_fb_diagram, 7970),
     (aux_sym_ERR_fb_variables_after_method_repeat1, 2343), (aux_sym_func_decl_repeat1, 7194),
     (aux_sym_fb_decl_repeat3, 2549), (aux_sym_SFC_repeat1, 7612),
     (aux_sym_stmt_list_repeat1, 2024), (aux_sym_ladder_diagram_repeat1, 8009),
     (aux_sym_fb_diagram_repeat1, 8013), (sym_identifier, 298),
     (aux_sym_ERR_unexpected_this_in_path_token1, 304),
     (aux_sym_ERR_unexpected_super_in_path_token1, 306), (sym_line_comment, 3),
     (anon_sym_LBRACE, 308), (aux_sym_test_pragma_token1, 9), (aux_sym_once_pragma_token1, 11),
     (aux_sym_must_call_pragma_token1, 13), (aux_sym_export_pragma_token1, 15),
     (anon_sym_SEMI, 310), (anon_sym_PERCENT, 312), (aux_sym_input_decls_token1, 314),
     (aux_sym_output_decls_token1, 316), (aux_sym_in_out_decls_token1, 318),
     (aux_sym_var_decls_token1, 320), (aux_sym_temp_var_decls_token1, 322),
     (aux_sym_external_var_decls_token1, 324), (aux_sym_global_var_decls_token1, 326),
     (aux_sym_fb_decl_token4, 1908), (aux_sym_method_decl_token1, 330),
     (aux_sym_prog_access_decls_token1, 332), (aux_sym_initial_step_token1, 334),
     (aux_sym_config_init_token1, 336), (aux_sym__stmt_token1, 340), (aux_sym__stmt_token2, 340),
     (aux_sym__stmt_token3, 340), (aux_sym_if_stmt_token1, 342), (aux_sym_case_stmt_token1, 344),
     (aux_sym_for_stmt_token1, 346), (aux_sym_while_stmt_token1, 348),
     (aux_sym_repeat_stmt_token1, 350), (aux_sym_raise_stmt_token1, 352),
     (aux_sym_try_stmt_token1, 354), (aux_sym_try_stmt_token2, 356),
     (aux_sym_catch_clause_token1, 356), (aux_sym_finally_clause_token1, 356), (sym_ld_rung, 358),
     (sym_fbd_network, 360), (sym_c_style_comment, 3), (sym_pascal_style_comment, 3),
     (sym_pragma, 3)]"

lemma ts_parse_row_789_scan: "row_scan tokens_63_2 0 ts_parse_row_789 = Some (Suc (Suc (Suc (Suc 0))))"
  unfolding ts_parse_row_789_def by simp

text \<open>Lines 144479 to 144591.\<close>

definition ts_parse_row_790 :: parse_row where
  "ts_parse_row_790 =
    [(sym_ERR_assign_func_call, 7530), (sym_ERR_unexpected_this_in_path, 2372),
     (sym_ERR_unexpected_super_in_path, 2372), (sym_ERR_fb_variables_after_method, 1784),
     (sym_ERR_var_access_not_allowed, 3160), (sym_ERR_var_config_not_allowed, 3160),
     (sym_ERR_var_global_not_allowed, 3160), (sym_ERR_method_decl_in_body, 3150),
     (sym_extern_pragma, 7490), (sym_wasm_pragma, 3150), (sym_warn_pragma, 7490),
     (sym_allow_pragma, 3140), (sym_test_pragma, 7490), (sym_once_pragma, 7490),
     (sym_must_call_pragma, 7490), (sym_export_pragma, 7490), (sym_pou_pragma, 7194),
     (sym_direct_variable, 7675), (sym_deref_expression, 2373), (sym_variable, 7599),
     (sym_var_access, 2373), (sym_in_out_decls, 3160), (sym_var_decls, 3160),
     (sym_retain_var_decls, 3160), (sym_temp_var_decls, 3160), (sym_external_var_decls, 3160),
     (sym_global_var_decls, 2947), (sym_loc_partly_var_decl, 3160), (sym__fb_variables, 2347),
     (sym_fb_input_decls, 3160), (sym_fb_output_decls, 3160), (sym_no_retain_var_decls, 3160),
     (sym_fb_body, 8322), (sym_method_decl, 832), (sym_prog_access_decls, 3043), (sym_SFC, 7970),
     (sym_SFC_network, 7612), (sym_initial_step, 7439), (sym_config_init, 3047),
     (sym_variable_access, 7530), (sym_func_call, 2961), (sym_stmt_list, 7970), (sym__stmt, 2024),
     (sym_assign, 3150), (sym_if_stmt, 3150), (sym_case_stmt, 3150), (sym_for_stmt, 3150),
     (sym_while_stmt, 3150), (sym_repeat_stmt, 3150), (sym_raise_stmt, 3150), (sym_try_stmt, 3150),
     (sym_ERR_clause_outside_try, 3150), (sym_begin_path_expression, 2943), (sym_invocation, 2934),
     (sym_any_invocation, 2935), (sym_this_invocation, 2641), (sym_super_invocation, 2641),
     (sym_super_body_invocation, 2935), (sym_path_expression, 2627), (sym_field_expression, 2373),
     (sym_index_expression, 2373), (sym_ladder_diagram, 7970), (sym_fb_diagram, 7970),
     (aux_sym_ERR_fb_variables_after_method_repeat1, 2347), (aux_sym_func_decl_repeat1, 7194),
     (aux_sym_fb_decl_repeat3, 832), (aux_sym_SFC_repeat1, 7612), (aux_sym_stmt_list_repeat1, 2024),
     (aux_sym_ladder_diagram_repeat1, 8009), (aux_sym_fb_diagram_repeat1, 8013),
     (sym_identifier, 298), (aux_sym_ERR_unexpected_this_in_path_token1, 304),
     (aux_sym_ERR_unexpected_super_in_path_token1, 306), (sym_line_comment, 3),
     (anon_sym_LBRACE, 308), (aux_sym_test_pragma_token1, 9), (aux_sym_once_pragma_token1, 11),
     (aux_sym_must_call_pragma_token1, 13), (aux_sym_export_pragma_token1, 15),
     (anon_sym_SEMI, 310), (anon_sym_PERCENT, 312), (aux_sym_input_decls_token1, 314),
     (aux_sym_output_decls_token1, 316), (aux_sym_in_out_decls_token1, 318),
     (aux_sym_var_decls_token1, 320), (aux_sym_temp_var_decls_token1, 322),
     (aux_sym_external_var_decls_token1, 324), (aux_sym_global_var_decls_token1, 326),
     (aux_sym_fb_decl_token4, 1910), (aux_sym_method_decl_token1, 330),
     (aux_sym_prog_access_decls_token1, 332), (aux_sym_initial_step_token1, 334),
     (aux_sym_config_init_token1, 336), (aux_sym__stmt_token1, 340), (aux_sym__stmt_token2, 340),
     (aux_sym__stmt_token3, 340), (aux_sym_if_stmt_token1, 342), (aux_sym_case_stmt_token1, 344),
     (aux_sym_for_stmt_token1, 346), (aux_sym_while_stmt_token1, 348),
     (aux_sym_repeat_stmt_token1, 350), (aux_sym_raise_stmt_token1, 352),
     (aux_sym_try_stmt_token1, 354), (aux_sym_try_stmt_token2, 356),
     (aux_sym_catch_clause_token1, 356), (aux_sym_finally_clause_token1, 356), (sym_ld_rung, 358),
     (sym_fbd_network, 360), (sym_c_style_comment, 3), (sym_pascal_style_comment, 3),
     (sym_pragma, 3)]"

lemma ts_parse_row_790_scan: "row_scan tokens_63_2 0 ts_parse_row_790 = Some (Suc (Suc (Suc (Suc 0))))"
  unfolding ts_parse_row_790_def by simp

text \<open>Lines 144592 to 144704.\<close>

definition ts_parse_row_791 :: parse_row where
  "ts_parse_row_791 =
    [(sym_ERR_assign_func_call, 7530), (sym_ERR_unexpected_this_in_path, 2372),
     (sym_ERR_unexpected_super_in_path, 2372), (sym_ERR_fb_variables_after_method, 1786),
     (sym_ERR_var_access_not_allowed, 3160), (sym_ERR_var_config_not_allowed, 3160),
     (sym_ERR_var_global_not_allowed, 3160), (sym_ERR_method_decl_in_body, 3150),
     (sym_extern_pragma, 7490), (sym_wasm_pragma, 3150), (sym_warn_pragma, 7490),
     (sym_allow_pragma, 3140), (sym_test_pragma, 7490), (sym_once_pragma, 7490),
     (sym_must_call_pragma, 7490), (sym_export_pragma, 7490), (sym_pou_pragma, 7194),
     (sym_direct_variable, 7675), (sym_deref_expression, 2373), (sym_variable, 7599),
     (sym_var_access, 2373), (sym_in_out_decls, 3160), (sym_var_decls, 3160),
     (sym_retain_var_decls, 3160), (sym_temp_var_decls, 3160), (sym_external_var_decls, 3160),
     (sym_global_var_decls, 2947), (sym_loc_partly_var_decl, 3160), (sym__fb_variables, 2343),
     (sym_fb_input_decls, 3160), (sym_fb_output_decls, 3160), (sym_no_retain_var_decls, 3160),
     (sym_fb_body, 8326), (sym_method_decl, 2549), (sym_prog_access_decls, 3043), (sym_SFC, 7970),
     (sym_SFC_network, 7612), (sym_initial_step, 7439), (sym_config_init, 3047),
     (sym_variable_access, 7530), (sym_func_call, 2961), (sym_stmt_list, 7970), (sym__stmt, 2024),
     (sym_assign, 3150), (sym_if_stmt, 3150), (sym_case_stmt, 3150), (sym_for_stmt, 3150),
     (sym_while_stmt, 3150), (sym_repeat_stmt, 3150), (sym_raise_stmt, 3150), (sym_try_stmt, 3150),
     (sym_ERR_clause_outside_try, 3150), (sym_begin_path_expression, 2943), (sym_invocation, 2934),
     (sym_any_invocation, 2935), (sym_this_invocation, 2641), (sym_super_invocation, 2641),
     (sym_super_body_invocation, 2935), (sym_path_expression, 2627), (sym_field_expression, 2373),
     (sym_index_expression, 2373), (sym_ladder_diagram, 7970), (sym_fb_diagram, 7970),
     (aux_sym_ERR_fb_variables_after_method_repeat1, 2343), (aux_sym_func_decl_repeat1, 7194),
     (aux_sym_fb_decl_repeat3, 2549), (aux_sym_SFC_repeat1, 7612),
     (aux_sym_stmt_list_repeat1, 2024), (aux_sym_ladder_diagram_repeat1, 8009),
     (aux_sym_fb_diagram_repeat1, 8013), (sym_identifier, 298),
     (aux_sym_ERR_unexpected_this_in_path_token1, 304),
     (aux_sym_ERR_unexpected_super_in_path_token1, 306), (sym_line_comment, 3),
     (anon_sym_LBRACE, 308), (aux_sym_test_pragma_token1, 9), (aux_sym_once_pragma_token1, 11),
     (aux_sym_must_call_pragma_token1, 13), (aux_sym_export_pragma_token1, 15),
     (anon_sym_SEMI, 310), (anon_sym_PERCENT, 312), (aux_sym_input_decls_token1, 314),
     (aux_sym_output_decls_token1, 316), (aux_sym_in_out_decls_token1, 318),
     (aux_sym_var_decls_token1, 320), (aux_sym_temp_var_decls_token1, 322),
     (aux_sym_external_var_decls_token1, 324), (aux_sym_global_var_decls_token1, 326),
     (aux_sym_fb_decl_token4, 1912), (aux_sym_method_decl_token1, 330),
     (aux_sym_prog_access_decls_token1, 332), (aux_sym_initial_step_token1, 334),
     (aux_sym_config_init_token1, 336), (aux_sym__stmt_token1, 340), (aux_sym__stmt_token2, 340),
     (aux_sym__stmt_token3, 340), (aux_sym_if_stmt_token1, 342), (aux_sym_case_stmt_token1, 344),
     (aux_sym_for_stmt_token1, 346), (aux_sym_while_stmt_token1, 348),
     (aux_sym_repeat_stmt_token1, 350), (aux_sym_raise_stmt_token1, 352),
     (aux_sym_try_stmt_token1, 354), (aux_sym_try_stmt_token2, 356),
     (aux_sym_catch_clause_token1, 356), (aux_sym_finally_clause_token1, 356), (sym_ld_rung, 358),
     (sym_fbd_network, 360), (sym_c_style_comment, 3), (sym_pascal_style_comment, 3),
     (sym_pragma, 3)]"

lemma ts_parse_row_791_scan: "row_scan tokens_63_2 0 ts_parse_row_791 = Some (Suc (Suc (Suc (Suc 0))))"
  unfolding ts_parse_row_791_def by simp

text \<open>Lines 144705 to 144817.\<close>

definition ts_parse_row_792 :: parse_row where
  "ts_parse_row_792 =
    [(sym_ERR_assign_func_call, 7530), (sym_ERR_unexpected_this_in_path, 2372),
     (sym_ERR_unexpected_super_in_path, 2372), (sym_ERR_fb_variables_after_method, 1787),
     (sym_ERR_var_access_not_allowed, 3160), (sym_ERR_var_config_not_allowed, 3160),
     (sym_ERR_var_global_not_allowed, 3160), (sym_ERR_method_decl_in_body, 3150),
     (sym_extern_pragma, 7490), (sym_wasm_pragma, 3150), (sym_warn_pragma, 7490),
     (sym_allow_pragma, 3140), (sym_test_pragma, 7490), (sym_once_pragma, 7490),
     (sym_must_call_pragma, 7490), (sym_export_pragma, 7490), (sym_pou_pragma, 7194),
     (sym_direct_variable, 7675), (sym_deref_expression, 2373), (sym_variable, 7599),
     (sym_var_access, 2373), (sym_in_out_decls, 3160), (sym_var_decls, 3160),
     (sym_retain_var_decls, 3160), (sym_temp_var_decls, 3160), (sym_external_var_decls, 3160),
     (sym_global_var_decls, 2947), (sym_loc_partly_var_decl, 3160), (sym__fb_variables, 2343),
     (sym_fb_input_decls, 3160), (sym_fb_output_decls, 3160), (sym_no_retain_var_decls, 3160),
     (sym_fb_body, 8355), (sym_method_decl, 2549), (sym_prog_access_decls, 3043), (sym_SFC, 7970),
     (sym_SFC_network, 7612), (sym_initial_step, 7439), (sym_config_init, 3047),
     (sym_variable_access, 7530), (sym_func_call, 2961), (sym_stmt_list, 7970), (sym__stmt, 2024),
     (sym_assign, 3150), (sym_if_stmt, 3150), (sym_case_stmt, 3150), (sym_for_stmt, 3150),
     (sym_while_stmt, 3150), (sym_repeat_stmt, 3150), (sym_raise_stmt, 3150), (sym_try_stmt, 3150),
     (sym_ERR_clause_outside_try, 3150), (sym_begin_path_expression, 2943), (sym_invocation, 2934),
     (sym_any_invocation, 2935), (sym_this_invocation, 2641), (sym_super_invocation, 2641),
     (sym_super_body_invocation, 2935), (sym_path_expression, 2627), (sym_field_expression, 2373),
     (sym_index_expression, 2373), (sym_ladder_diagram, 7970), (sym_fb_diagram, 7970),
     (aux_sym_ERR_fb_variables_after_method_repeat1, 2343), (aux_sym_func_decl_repeat1, 7194),
     (aux_sym_fb_decl_repeat3, 2549), (aux_sym_SFC_repeat1, 7612),
     (aux_sym_stmt_list_repeat1, 2024), (aux_sym_ladder_diagram_repeat1, 8009),
     (aux_sym_fb_diagram_repeat1, 8013), (sym_identifier, 298),
     (aux_sym_ERR_unexpected_this_in_path_token1, 304),
     (aux_sym_ERR_unexpected_super_in_path_token1, 306), (sym_line_comment, 3),
     (anon_sym_LBRACE, 308), (aux_sym_test_pragma_token1, 9), (aux_sym_once_pragma_token1, 11),
     (aux_sym_must_call_pragma_token1, 13), (aux_sym_export_pragma_token1, 15),
     (anon_sym_SEMI, 310), (anon_sym_PERCENT, 312), (aux_sym_input_decls_token1, 314),
     (aux_sym_output_decls_token1, 316), (aux_sym_in_out_decls_token1, 318),
     (aux_sym_var_decls_token1, 320), (aux_sym_temp_var_decls_token1, 322),
     (aux_sym_external_var_decls_token1, 324), (aux_sym_global_var_decls_token1, 326),
     (aux_sym_fb_decl_token4, 1914), (aux_sym_method_decl_token1, 330),
     (aux_sym_prog_access_decls_token1, 332), (aux_sym_initial_step_token1, 334),
     (aux_sym_config_init_token1, 336), (aux_sym__stmt_token1, 340), (aux_sym__stmt_token2, 340),
     (aux_sym__stmt_token3, 340), (aux_sym_if_stmt_token1, 342), (aux_sym_case_stmt_token1, 344),
     (aux_sym_for_stmt_token1, 346), (aux_sym_while_stmt_token1, 348),
     (aux_sym_repeat_stmt_token1, 350), (aux_sym_raise_stmt_token1, 352),
     (aux_sym_try_stmt_token1, 354), (aux_sym_try_stmt_token2, 356),
     (aux_sym_catch_clause_token1, 356), (aux_sym_finally_clause_token1, 356), (sym_ld_rung, 358),
     (sym_fbd_network, 360), (sym_c_style_comment, 3), (sym_pascal_style_comment, 3),
     (sym_pragma, 3)]"

lemma ts_parse_row_792_scan: "row_scan tokens_63_2 0 ts_parse_row_792 = Some (Suc (Suc (Suc (Suc 0))))"
  unfolding ts_parse_row_792_def by simp

text \<open>Lines 144818 to 144930.\<close>

definition ts_parse_row_793 :: parse_row where
  "ts_parse_row_793 =
    [(sym_ERR_assign_func_call, 7530), (sym_ERR_unexpected_this_in_path, 2372),
     (sym_ERR_unexpected_super_in_path, 2372), (sym_ERR_fb_variables_after_method, 1788),
     (sym_ERR_var_access_not_allowed, 3160), (sym_ERR_var_config_not_allowed, 3160),
     (sym_ERR_var_global_not_allowed, 3160), (sym_ERR_method_decl_in_body, 3150),
     (sym_extern_pragma, 7490), (sym_wasm_pragma, 3150), (sym_warn_pragma, 7490),
     (sym_allow_pragma, 3140), (sym_test_pragma, 7490), (sym_once_pragma, 7490),
     (sym_must_call_pragma, 7490), (sym_export_pragma, 7490), (sym_pou_pragma, 7194),
     (sym_direct_variable, 7675), (sym_deref_expression, 2373), (sym_variable, 7599),
     (sym_var_access, 2373), (sym_in_out_decls, 3160), (sym_var_decls, 3160),
     (sym_retain_var_decls, 3160), (sym_temp_var_decls, 3160), (sym_external_var_decls, 3160),
     (sym_global_var_decls, 2947), (sym_loc_partly_var_decl, 3160), (sym__fb_variables, 2343),
     (sym_fb_input_decls, 3160), (sym_fb_output_decls, 3160), (sym_no_retain_var_decls, 3160),
     (sym_fb_body, 8370), (sym_method_decl, 2549), (sym_prog_access_decls, 3043), (sym_SFC, 7970),
     (sym_SFC_network, 7612), (sym_initial_step, 7439), (sym_config_init, 3047),
     (sym_variable_access, 7530), (sym_func_call, 2961), (sym_stmt_list, 7970), (sym__stmt, 2024),
     (sym_assign, 3150), (sym_if_stmt, 3150), (sym_case_stmt, 3150), (sym_for_stmt, 3150),
     (sym_while_stmt, 3150), (sym_repeat_stmt, 3150), (sym_raise_stmt, 3150), (sym_try_stmt, 3150),
     (sym_ERR_clause_outside_try, 3150), (sym_begin_path_expression, 2943), (sym_invocation, 2934),
     (sym_any_invocation, 2935), (sym_this_invocation, 2641), (sym_super_invocation, 2641),
     (sym_super_body_invocation, 2935), (sym_path_expression, 2627), (sym_field_expression, 2373),
     (sym_index_expression, 2373), (sym_ladder_diagram, 7970), (sym_fb_diagram, 7970),
     (aux_sym_ERR_fb_variables_after_method_repeat1, 2343), (aux_sym_func_decl_repeat1, 7194),
     (aux_sym_fb_decl_repeat3, 2549), (aux_sym_SFC_repeat1, 7612),
     (aux_sym_stmt_list_repeat1, 2024), (aux_sym_ladder_diagram_repeat1, 8009),
     (aux_sym_fb_diagram_repeat1, 8013), (sym_identifier, 298),
     (aux_sym_ERR_unexpected_this_in_path_token1, 304),
     (aux_sym_ERR_unexpected_super_in_path_token1, 306), (sym_line_comment, 3),
     (anon_sym_LBRACE, 308), (aux_sym_test_pragma_token1, 9), (aux_sym_once_pragma_token1, 11),
     (aux_sym_must_call_pragma_token1, 13), (aux_sym_export_pragma_token1, 15),
     (anon_sym_SEMI, 310), (anon_sym_PERCENT, 312), (aux_sym_input_decls_token1, 314),
     (aux_sym_output_decls_token1, 316), (aux_sym_in_out_decls_token1, 318),
     (aux_sym_var_decls_token1, 320), (aux_sym_temp_var_decls_token1, 322),
     (aux_sym_external_var_decls_token1, 324), (aux_sym_global_var_decls_token1, 326),
     (aux_sym_fb_decl_token4, 1916), (aux_sym_method_decl_token1, 330),
     (aux_sym_prog_access_decls_token1, 332), (aux_sym_initial_step_token1, 334),
     (aux_sym_config_init_token1, 336), (aux_sym__stmt_token1, 340), (aux_sym__stmt_token2, 340),
     (aux_sym__stmt_token3, 340), (aux_sym_if_stmt_token1, 342), (aux_sym_case_stmt_token1, 344),
     (aux_sym_for_stmt_token1, 346), (aux_sym_while_stmt_token1, 348),
     (aux_sym_repeat_stmt_token1, 350), (aux_sym_raise_stmt_token1, 352),
     (aux_sym_try_stmt_token1, 354), (aux_sym_try_stmt_token2, 356),
     (aux_sym_catch_clause_token1, 356), (aux_sym_finally_clause_token1, 356), (sym_ld_rung, 358),
     (sym_fbd_network, 360), (sym_c_style_comment, 3), (sym_pascal_style_comment, 3),
     (sym_pragma, 3)]"

lemma ts_parse_row_793_scan: "row_scan tokens_63_2 0 ts_parse_row_793 = Some (Suc (Suc (Suc (Suc 0))))"
  unfolding ts_parse_row_793_def by simp

text \<open>Lines 144931 to 145043.\<close>

definition ts_parse_row_794 :: parse_row where
  "ts_parse_row_794 =
    [(sym_ERR_assign_func_call, 7530), (sym_ERR_unexpected_this_in_path, 2372),
     (sym_ERR_unexpected_super_in_path, 2372), (sym_ERR_fb_variables_after_method, 1789),
     (sym_ERR_var_access_not_allowed, 3160), (sym_ERR_var_config_not_allowed, 3160),
     (sym_ERR_var_global_not_allowed, 3160), (sym_ERR_method_decl_in_body, 3150),
     (sym_extern_pragma, 7490), (sym_wasm_pragma, 3150), (sym_warn_pragma, 7490),
     (sym_allow_pragma, 3140), (sym_test_pragma, 7490), (sym_once_pragma, 7490),
     (sym_must_call_pragma, 7490), (sym_export_pragma, 7490), (sym_pou_pragma, 7194),
     (sym_direct_variable, 7675), (sym_deref_expression, 2373), (sym_variable, 7599),
     (sym_var_access, 2373), (sym_in_out_decls, 3160), (sym_var_decls, 3160),
     (sym_retain_var_decls, 3160), (sym_temp_var_decls, 3160), (sym_external_var_decls, 3160),
     (sym_global_var_decls, 2947), (sym_loc_partly_var_decl, 3160), (sym__fb_variables, 2343),
     (sym_fb_input_decls, 3160), (sym_fb_output_decls, 3160), (sym_no_retain_var_decls, 3160),
     (sym_fb_body, 8380), (sym_method_decl, 2549), (sym_prog_access_decls, 3043), (sym_SFC, 7970),
     (sym_SFC_network, 7612), (sym_initial_step, 7439), (sym_config_init, 3047),
     (sym_variable_access, 7530), (sym_func_call, 2961), (sym_stmt_list, 7970), (sym__stmt, 2024),
     (sym_assign, 3150), (sym_if_stmt, 3150), (sym_case_stmt, 3150), (sym_for_stmt, 3150),
     (sym_while_stmt, 3150), (sym_repeat_stmt, 3150), (sym_raise_stmt, 3150), (sym_try_stmt, 3150),
     (sym_ERR_clause_outside_try, 3150), (sym_begin_path_expression, 2943), (sym_invocation, 2934),
     (sym_any_invocation, 2935), (sym_this_invocation, 2641), (sym_super_invocation, 2641),
     (sym_super_body_invocation, 2935), (sym_path_expression, 2627), (sym_field_expression, 2373),
     (sym_index_expression, 2373), (sym_ladder_diagram, 7970), (sym_fb_diagram, 7970),
     (aux_sym_ERR_fb_variables_after_method_repeat1, 2343), (aux_sym_func_decl_repeat1, 7194),
     (aux_sym_fb_decl_repeat3, 2549), (aux_sym_SFC_repeat1, 7612),
     (aux_sym_stmt_list_repeat1, 2024), (aux_sym_ladder_diagram_repeat1, 8009),
     (aux_sym_fb_diagram_repeat1, 8013), (sym_identifier, 298),
     (aux_sym_ERR_unexpected_this_in_path_token1, 304),
     (aux_sym_ERR_unexpected_super_in_path_token1, 306), (sym_line_comment, 3),
     (anon_sym_LBRACE, 308), (aux_sym_test_pragma_token1, 9), (aux_sym_once_pragma_token1, 11),
     (aux_sym_must_call_pragma_token1, 13), (aux_sym_export_pragma_token1, 15),
     (anon_sym_SEMI, 310), (anon_sym_PERCENT, 312), (aux_sym_input_decls_token1, 314),
     (aux_sym_output_decls_token1, 316), (aux_sym_in_out_decls_token1, 318),
     (aux_sym_var_decls_token1, 320), (aux_sym_temp_var_decls_token1, 322),
     (aux_sym_external_var_decls_token1, 324), (aux_sym_global_var_decls_token1, 326),
     (aux_sym_fb_decl_token4, 1918), (aux_sym_method_decl_token1, 330),
     (aux_sym_prog_access_decls_token1, 332), (aux_sym_initial_step_token1, 334),
     (aux_sym_config_init_token1, 336), (aux_sym__stmt_token1, 340), (aux_sym__stmt_token2, 340),
     (aux_sym__stmt_token3, 340), (aux_sym_if_stmt_token1, 342), (aux_sym_case_stmt_token1, 344),
     (aux_sym_for_stmt_token1, 346), (aux_sym_while_stmt_token1, 348),
     (aux_sym_repeat_stmt_token1, 350), (aux_sym_raise_stmt_token1, 352),
     (aux_sym_try_stmt_token1, 354), (aux_sym_try_stmt_token2, 356),
     (aux_sym_catch_clause_token1, 356), (aux_sym_finally_clause_token1, 356), (sym_ld_rung, 358),
     (sym_fbd_network, 360), (sym_c_style_comment, 3), (sym_pascal_style_comment, 3),
     (sym_pragma, 3)]"

lemma ts_parse_row_794_scan: "row_scan tokens_63_2 0 ts_parse_row_794 = Some (Suc (Suc (Suc (Suc 0))))"
  unfolding ts_parse_row_794_def by simp

text \<open>Lines 145044 to 145156.\<close>

definition ts_parse_row_795 :: parse_row where
  "ts_parse_row_795 =
    [(sym_ERR_assign_func_call, 7530), (sym_ERR_unexpected_this_in_path, 2372),
     (sym_ERR_unexpected_super_in_path, 2372), (sym_ERR_fb_variables_after_method, 1790),
     (sym_ERR_var_access_not_allowed, 3160), (sym_ERR_var_config_not_allowed, 3160),
     (sym_ERR_var_global_not_allowed, 3160), (sym_ERR_method_decl_in_body, 3150),
     (sym_extern_pragma, 7490), (sym_wasm_pragma, 3150), (sym_warn_pragma, 7490),
     (sym_allow_pragma, 3140), (sym_test_pragma, 7490), (sym_once_pragma, 7490),
     (sym_must_call_pragma, 7490), (sym_export_pragma, 7490), (sym_pou_pragma, 7194),
     (sym_direct_variable, 7675), (sym_deref_expression, 2373), (sym_variable, 7599),
     (sym_var_access, 2373), (sym_in_out_decls, 3160), (sym_var_decls, 3160),
     (sym_retain_var_decls, 3160), (sym_temp_var_decls, 3160), (sym_external_var_decls, 3160),
     (sym_global_var_decls, 2947), (sym_loc_partly_var_decl, 3160), (sym__fb_variables, 2347),
     (sym_fb_input_decls, 3160), (sym_fb_output_decls, 3160), (sym_no_retain_var_decls, 3160),
     (sym_fb_body, 8386), (sym_method_decl, 833), (sym_prog_access_decls, 3043), (sym_SFC, 7970),
     (sym_SFC_network, 7612), (sym_initial_step, 7439), (sym_config_init, 3047),
     (sym_variable_access, 7530), (sym_func_call, 2961), (sym_stmt_list, 7970), (sym__stmt, 2024),
     (sym_assign, 3150), (sym_if_stmt, 3150), (sym_case_stmt, 3150), (sym_for_stmt, 3150),
     (sym_while_stmt, 3150), (sym_repeat_stmt, 3150), (sym_raise_stmt, 3150), (sym_try_stmt, 3150),
     (sym_ERR_clause_outside_try, 3150), (sym_begin_path_expression, 2943), (sym_invocation, 2934),
     (sym_any_invocation, 2935), (sym_this_invocation, 2641), (sym_super_invocation, 2641),
     (sym_super_body_invocation, 2935), (sym_path_expression, 2627), (sym_field_expression, 2373),
     (sym_index_expression, 2373), (sym_ladder_diagram, 7970), (sym_fb_diagram, 7970),
     (aux_sym_ERR_fb_variables_after_method_repeat1, 2347), (aux_sym_func_decl_repeat1, 7194),
     (aux_sym_fb_decl_repeat3, 833), (aux_sym_SFC_repeat1, 7612), (aux_sym_stmt_list_repeat1, 2024),
     (aux_sym_ladder_diagram_repeat1, 8009), (aux_sym_fb_diagram_repeat1, 8013),
     (sym_identifier, 298), (aux_sym_ERR_unexpected_this_in_path_token1, 304),
     (aux_sym_ERR_unexpected_super_in_path_token1, 306), (sym_line_comment, 3),
     (anon_sym_LBRACE, 308), (aux_sym_test_pragma_token1, 9), (aux_sym_once_pragma_token1, 11),
     (aux_sym_must_call_pragma_token1, 13), (aux_sym_export_pragma_token1, 15),
     (anon_sym_SEMI, 310), (anon_sym_PERCENT, 312), (aux_sym_input_decls_token1, 314),
     (aux_sym_output_decls_token1, 316), (aux_sym_in_out_decls_token1, 318),
     (aux_sym_var_decls_token1, 320), (aux_sym_temp_var_decls_token1, 322),
     (aux_sym_external_var_decls_token1, 324), (aux_sym_global_var_decls_token1, 326),
     (aux_sym_fb_decl_token4, 1920), (aux_sym_method_decl_token1, 330),
     (aux_sym_prog_access_decls_token1, 332), (aux_sym_initial_step_token1, 334),
     (aux_sym_config_init_token1, 336), (aux_sym__stmt_token1, 340), (aux_sym__stmt_token2, 340),
     (aux_sym__stmt_token3, 340), (aux_sym_if_stmt_token1, 342), (aux_sym_case_stmt_token1, 344),
     (aux_sym_for_stmt_token1, 346), (aux_sym_while_stmt_token1, 348),
     (aux_sym_repeat_stmt_token1, 350), (aux_sym_raise_stmt_token1, 352),
     (aux_sym_try_stmt_token1, 354), (aux_sym_try_stmt_token2, 356),
     (aux_sym_catch_clause_token1, 356), (aux_sym_finally_clause_token1, 356), (sym_ld_rung, 358),
     (sym_fbd_network, 360), (sym_c_style_comment, 3), (sym_pascal_style_comment, 3),
     (sym_pragma, 3)]"

lemma ts_parse_row_795_scan: "row_scan tokens_63_2 0 ts_parse_row_795 = Some (Suc (Suc (Suc (Suc 0))))"
  unfolding ts_parse_row_795_def by simp

text \<open>Lines 145157 to 145269.\<close>

definition ts_parse_row_796 :: parse_row where
  "ts_parse_row_796 =
    [(sym_ERR_assign_func_call, 7530), (sym_ERR_unexpected_this_in_path, 2372),
     (sym_ERR_unexpected_super_in_path, 2372), (sym_ERR_fb_variables_after_method, 1792),
     (sym_ERR_var_access_not_allowed, 3160), (sym_ERR_var_config_not_allowed, 3160),
     (sym_ERR_var_global_not_allowed, 3160), (sym_ERR_method_decl_in_body, 3150),
     (sym_extern_pragma, 7490), (sym_wasm_pragma, 3150), (sym_warn_pragma, 7490),
     (sym_allow_pragma, 3140), (sym_test_pragma, 7490), (sym_once_pragma, 7490),
     (sym_must_call_pragma, 7490), (sym_export_pragma, 7490), (sym_pou_pragma, 7194),
     (sym_direct_variable, 7675), (sym_deref_expression, 2373), (sym_variable, 7599),
     (sym_var_access, 2373), (sym_in_out_decls, 3160), (sym_var_decls, 3160),
     (sym_retain_var_decls, 3160), (sym_temp_var_decls, 3160), (sym_external_var_decls, 3160),
     (sym_global_var_decls, 2947), (sym_loc_partly_var_decl, 3160), (sym__fb_variables, 2343),
     (sym_fb_input_decls, 3160), (sym_fb_output_decls, 3160), (sym_no_retain_var_decls, 3160),
     (sym_fb_body, 8390), (sym_method_decl, 2549), (sym_prog_access_decls, 3043), (sym_SFC, 7970),
     (sym_SFC_network, 7612), (sym_initial_step, 7439), (sym_config_init, 3047),
     (sym_variable_access, 7530), (sym_func_call, 2961), (sym_stmt_list, 7970), (sym__stmt, 2024),
     (sym_assign, 3150), (sym_if_stmt, 3150), (sym_case_stmt, 3150), (sym_for_stmt, 3150),
     (sym_while_stmt, 3150), (sym_repeat_stmt, 3150), (sym_raise_stmt, 3150), (sym_try_stmt, 3150),
     (sym_ERR_clause_outside_try, 3150), (sym_begin_path_expression, 2943), (sym_invocation, 2934),
     (sym_any_invocation, 2935), (sym_this_invocation, 2641), (sym_super_invocation, 2641),
     (sym_super_body_invocation, 2935), (sym_path_expression, 2627), (sym_field_expression, 2373),
     (sym_index_expression, 2373), (sym_ladder_diagram, 7970), (sym_fb_diagram, 7970),
     (aux_sym_ERR_fb_variables_after_method_repeat1, 2343), (aux_sym_func_decl_repeat1, 7194),
     (aux_sym_fb_decl_repeat3, 2549), (aux_sym_SFC_repeat1, 7612),
     (aux_sym_stmt_list_repeat1, 2024), (aux_sym_ladder_diagram_repeat1, 8009),
     (aux_sym_fb_diagram_repeat1, 8013), (sym_identifier, 298),
     (aux_sym_ERR_unexpected_this_in_path_token1, 304),
     (aux_sym_ERR_unexpected_super_in_path_token1, 306), (sym_line_comment, 3),
     (anon_sym_LBRACE, 308), (aux_sym_test_pragma_token1, 9), (aux_sym_once_pragma_token1, 11),
     (aux_sym_must_call_pragma_token1, 13), (aux_sym_export_pragma_token1, 15),
     (anon_sym_SEMI, 310), (anon_sym_PERCENT, 312), (aux_sym_input_decls_token1, 314),
     (aux_sym_output_decls_token1, 316), (aux_sym_in_out_decls_token1, 318),
     (aux_sym_var_decls_token1, 320), (aux_sym_temp_var_decls_token1, 322),
     (aux_sym_external_var_decls_token1, 324), (aux_sym_global_var_decls_token1, 326),
     (aux_sym_fb_decl_token4, 1922), (aux_sym_method_decl_token1, 330),
     (aux_sym_prog_access_decls_token1, 332), (aux_sym_initial_step_token1, 334),
     (aux_sym_config_init_token1, 336), (aux_sym__stmt_token1, 340), (aux_sym__stmt_token2, 340),
     (aux_sym__stmt_token3, 340), (aux_sym_if_stmt_token1, 342), (aux_sym_case_stmt_token1, 344),
     (aux_sym_for_stmt_token1, 346), (aux_sym_while_stmt_token1, 348),
     (aux_sym_repeat_stmt_token1, 350), (aux_sym_raise_stmt_token1, 352),
     (aux_sym_try_stmt_token1, 354), (aux_sym_try_stmt_token2, 356),
     (aux_sym_catch_clause_token1, 356), (aux_sym_finally_clause_token1, 356), (sym_ld_rung, 358),
     (sym_fbd_network, 360), (sym_c_style_comment, 3), (sym_pascal_style_comment, 3),
     (sym_pragma, 3)]"

lemma ts_parse_row_796_scan: "row_scan tokens_63_2 0 ts_parse_row_796 = Some (Suc (Suc (Suc (Suc 0))))"
  unfolding ts_parse_row_796_def by simp

text \<open>Lines 145270 to 145382.\<close>

definition ts_parse_row_797 :: parse_row where
  "ts_parse_row_797 =
    [(sym_ERR_assign_func_call, 7530), (sym_ERR_unexpected_this_in_path, 2372),
     (sym_ERR_unexpected_super_in_path, 2372), (sym_ERR_fb_variables_after_method, 1793),
     (sym_ERR_var_access_not_allowed, 3160), (sym_ERR_var_config_not_allowed, 3160),
     (sym_ERR_var_global_not_allowed, 3160), (sym_ERR_method_decl_in_body, 3150),
     (sym_extern_pragma, 7490), (sym_wasm_pragma, 3150), (sym_warn_pragma, 7490),
     (sym_allow_pragma, 3140), (sym_test_pragma, 7490), (sym_once_pragma, 7490),
     (sym_must_call_pragma, 7490), (sym_export_pragma, 7490), (sym_pou_pragma, 7194),
     (sym_direct_variable, 7675), (sym_deref_expression, 2373), (sym_variable, 7599),
     (sym_var_access, 2373), (sym_in_out_decls, 3160), (sym_var_decls, 3160),
     (sym_retain_var_decls, 3160), (sym_temp_var_decls, 3160), (sym_external_var_decls, 3160),
     (sym_global_var_decls, 2947), (sym_loc_partly_var_decl, 3160), (sym__fb_variables, 2343),
     (sym_fb_input_decls, 3160), (sym_fb_output_decls, 3160), (sym_no_retain_var_decls, 3160),
     (sym_fb_body, 8419), (sym_method_decl, 2549), (sym_prog_access_decls, 3043), (sym_SFC, 7970),
     (sym_SFC_network, 7612), (sym_initial_step, 7439), (sym_config_init, 3047),
     (sym_variable_access, 7530), (sym_func_call, 2961), (sym_stmt_list, 7970), (sym__stmt, 2024),
     (sym_assign, 3150), (sym_if_stmt, 3150), (sym_case_stmt, 3150), (sym_for_stmt, 3150),
     (sym_while_stmt, 3150), (sym_repeat_stmt, 3150), (sym_raise_stmt, 3150), (sym_try_stmt, 3150),
     (sym_ERR_clause_outside_try, 3150), (sym_begin_path_expression, 2943), (sym_invocation, 2934),
     (sym_any_invocation, 2935), (sym_this_invocation, 2641), (sym_super_invocation, 2641),
     (sym_super_body_invocation, 2935), (sym_path_expression, 2627), (sym_field_expression, 2373),
     (sym_index_expression, 2373), (sym_ladder_diagram, 7970), (sym_fb_diagram, 7970),
     (aux_sym_ERR_fb_variables_after_method_repeat1, 2343), (aux_sym_func_decl_repeat1, 7194),
     (aux_sym_fb_decl_repeat3, 2549), (aux_sym_SFC_repeat1, 7612),
     (aux_sym_stmt_list_repeat1, 2024), (aux_sym_ladder_diagram_repeat1, 8009),
     (aux_sym_fb_diagram_repeat1, 8013), (sym_identifier, 298),
     (aux_sym_ERR_unexpected_this_in_path_token1, 304),
     (aux_sym_ERR_unexpected_super_in_path_token1, 306), (sym_line_comment, 3),
     (anon_sym_LBRACE, 308), (aux_sym_test_pragma_token1, 9), (aux_sym_once_pragma_token1, 11),
     (aux_sym_must_call_pragma_token1, 13), (aux_sym_export_pragma_token1, 15),
     (anon_sym_SEMI, 310), (anon_sym_PERCENT, 312), (aux_sym_input_decls_token1, 314),
     (aux_sym_output_decls_token1, 316), (aux_sym_in_out_decls_token1, 318),
     (aux_sym_var_decls_token1, 320), (aux_sym_temp_var_decls_token1, 322),
     (aux_sym_external_var_decls_token1, 324), (aux_sym_global_var_decls_token1, 326),
     (aux_sym_fb_decl_token4, 1924), (aux_sym_method_decl_token1, 330),
     (aux_sym_prog_access_decls_token1, 332), (aux_sym_initial_step_token1, 334),
     (aux_sym_config_init_token1, 336), (aux_sym__stmt_token1, 340), (aux_sym__stmt_token2, 340),
     (aux_sym__stmt_token3, 340), (aux_sym_if_stmt_token1, 342), (aux_sym_case_stmt_token1, 344),
     (aux_sym_for_stmt_token1, 346), (aux_sym_while_stmt_token1, 348),
     (aux_sym_repeat_stmt_token1, 350), (aux_sym_raise_stmt_token1, 352),
     (aux_sym_try_stmt_token1, 354), (aux_sym_try_stmt_token2, 356),
     (aux_sym_catch_clause_token1, 356), (aux_sym_finally_clause_token1, 356), (sym_ld_rung, 358),
     (sym_fbd_network, 360), (sym_c_style_comment, 3), (sym_pascal_style_comment, 3),
     (sym_pragma, 3)]"

lemma ts_parse_row_797_scan: "row_scan tokens_63_2 0 ts_parse_row_797 = Some (Suc (Suc (Suc (Suc 0))))"
  unfolding ts_parse_row_797_def by simp

text \<open>Lines 145383 to 145495.\<close>

definition ts_parse_row_798 :: parse_row where
  "ts_parse_row_798 =
    [(sym_ERR_assign_func_call, 7530), (sym_ERR_unexpected_this_in_path, 2372),
     (sym_ERR_unexpected_super_in_path, 2372), (sym_ERR_fb_variables_after_method, 1794),
     (sym_ERR_var_access_not_allowed, 3160), (sym_ERR_var_config_not_allowed, 3160),
     (sym_ERR_var_global_not_allowed, 3160), (sym_ERR_method_decl_in_body, 3150),
     (sym_extern_pragma, 7490), (sym_wasm_pragma, 3150), (sym_warn_pragma, 7490),
     (sym_allow_pragma, 3140), (sym_test_pragma, 7490), (sym_once_pragma, 7490),
     (sym_must_call_pragma, 7490), (sym_export_pragma, 7490), (sym_pou_pragma, 7194),
     (sym_direct_variable, 7675), (sym_deref_expression, 2373), (sym_variable, 7599),
     (sym_var_access, 2373), (sym_in_out_decls, 3160), (sym_var_decls, 3160),
     (sym_retain_var_decls, 3160), (sym_temp_var_decls, 3160), (sym_external_var_decls, 3160),
     (sym_global_var_decls, 2947), (sym_loc_partly_var_decl, 3160), (sym__fb_variables, 2343),
     (sym_fb_input_decls, 3160), (sym_fb_output_decls, 3160), (sym_no_retain_var_decls, 3160),
     (sym_fb_body, 8429), (sym_method_decl, 2549), (sym_prog_access_decls, 3043), (sym_SFC, 7970),
     (sym_SFC_network, 7612), (sym_initial_step, 7439), (sym_config_init, 3047),
     (sym_variable_access, 7530), (sym_func_call, 2961), (sym_stmt_list, 7970), (sym__stmt, 2024),
     (sym_assign, 3150), (sym_if_stmt, 3150), (sym_case_stmt, 3150), (sym_for_stmt, 3150),
     (sym_while_stmt, 3150), (sym_repeat_stmt, 3150), (sym_raise_stmt, 3150), (sym_try_stmt, 3150),
     (sym_ERR_clause_outside_try, 3150), (sym_begin_path_expression, 2943), (sym_invocation, 2934),
     (sym_any_invocation, 2935), (sym_this_invocation, 2641), (sym_super_invocation, 2641),
     (sym_super_body_invocation, 2935), (sym_path_expression, 2627), (sym_field_expression, 2373),
     (sym_index_expression, 2373), (sym_ladder_diagram, 7970), (sym_fb_diagram, 7970),
     (aux_sym_ERR_fb_variables_after_method_repeat1, 2343), (aux_sym_func_decl_repeat1, 7194),
     (aux_sym_fb_decl_repeat3, 2549), (aux_sym_SFC_repeat1, 7612),
     (aux_sym_stmt_list_repeat1, 2024), (aux_sym_ladder_diagram_repeat1, 8009),
     (aux_sym_fb_diagram_repeat1, 8013), (sym_identifier, 298),
     (aux_sym_ERR_unexpected_this_in_path_token1, 304),
     (aux_sym_ERR_unexpected_super_in_path_token1, 306), (sym_line_comment, 3),
     (anon_sym_LBRACE, 308), (aux_sym_test_pragma_token1, 9), (aux_sym_once_pragma_token1, 11),
     (aux_sym_must_call_pragma_token1, 13), (aux_sym_export_pragma_token1, 15),
     (anon_sym_SEMI, 310), (anon_sym_PERCENT, 312), (aux_sym_input_decls_token1, 314),
     (aux_sym_output_decls_token1, 316), (aux_sym_in_out_decls_token1, 318),
     (aux_sym_var_decls_token1, 320), (aux_sym_temp_var_decls_token1, 322),
     (aux_sym_external_var_decls_token1, 324), (aux_sym_global_var_decls_token1, 326),
     (aux_sym_fb_decl_token4, 1926), (aux_sym_method_decl_token1, 330),
     (aux_sym_prog_access_decls_token1, 332), (aux_sym_initial_step_token1, 334),
     (aux_sym_config_init_token1, 336), (aux_sym__stmt_token1, 340), (aux_sym__stmt_token2, 340),
     (aux_sym__stmt_token3, 340), (aux_sym_if_stmt_token1, 342), (aux_sym_case_stmt_token1, 344),
     (aux_sym_for_stmt_token1, 346), (aux_sym_while_stmt_token1, 348),
     (aux_sym_repeat_stmt_token1, 350), (aux_sym_raise_stmt_token1, 352),
     (aux_sym_try_stmt_token1, 354), (aux_sym_try_stmt_token2, 356),
     (aux_sym_catch_clause_token1, 356), (aux_sym_finally_clause_token1, 356), (sym_ld_rung, 358),
     (sym_fbd_network, 360), (sym_c_style_comment, 3), (sym_pascal_style_comment, 3),
     (sym_pragma, 3)]"

lemma ts_parse_row_798_scan: "row_scan tokens_63_2 0 ts_parse_row_798 = Some (Suc (Suc (Suc (Suc 0))))"
  unfolding ts_parse_row_798_def by simp

text \<open>Lines 145496 to 145608.\<close>

definition ts_parse_row_799 :: parse_row where
  "ts_parse_row_799 =
    [(sym_ERR_assign_func_call, 7530), (sym_ERR_unexpected_this_in_path, 2372),
     (sym_ERR_unexpected_super_in_path, 2372), (sym_ERR_fb_variables_after_method, 1795),
     (sym_ERR_var_access_not_allowed, 3160), (sym_ERR_var_config_not_allowed, 3160),
     (sym_ERR_var_global_not_allowed, 3160), (sym_ERR_method_decl_in_body, 3150),
     (sym_extern_pragma, 7490), (sym_wasm_pragma, 3150), (sym_warn_pragma, 7490),
     (sym_allow_pragma, 3140), (sym_test_pragma, 7490), (sym_once_pragma, 7490),
     (sym_must_call_pragma, 7490), (sym_export_pragma, 7490), (sym_pou_pragma, 7194),
     (sym_direct_variable, 7675), (sym_deref_expression, 2373), (sym_variable, 7599),
     (sym_var_access, 2373), (sym_in_out_decls, 3160), (sym_var_decls, 3160),
     (sym_retain_var_decls, 3160), (sym_temp_var_decls, 3160), (sym_external_var_decls, 3160),
     (sym_global_var_decls, 2947), (sym_loc_partly_var_decl, 3160), (sym__fb_variables, 2347),
     (sym_fb_input_decls, 3160), (sym_fb_output_decls, 3160), (sym_no_retain_var_decls, 3160),
     (sym_fb_body, 8435), (sym_method_decl, 834), (sym_prog_access_decls, 3043), (sym_SFC, 7970),
     (sym_SFC_network, 7612), (sym_initial_step, 7439), (sym_config_init, 3047),
     (sym_variable_access, 7530), (sym_func_call, 2961), (sym_stmt_list, 7970), (sym__stmt, 2024),
     (sym_assign, 3150), (sym_if_stmt, 3150), (sym_case_stmt, 3150), (sym_for_stmt, 3150),
     (sym_while_stmt, 3150), (sym_repeat_stmt, 3150), (sym_raise_stmt, 3150), (sym_try_stmt, 3150),
     (sym_ERR_clause_outside_try, 3150), (sym_begin_path_expression, 2943), (sym_invocation, 2934),
     (sym_any_invocation, 2935), (sym_this_invocation, 2641), (sym_super_invocation, 2641),
     (sym_super_body_invocation, 2935), (sym_path_expression, 2627), (sym_field_expression, 2373),
     (sym_index_expression, 2373), (sym_ladder_diagram, 7970), (sym_fb_diagram, 7970),
     (aux_sym_ERR_fb_variables_after_method_repeat1, 2347), (aux_sym_func_decl_repeat1, 7194),
     (aux_sym_fb_decl_repeat3, 834), (aux_sym_SFC_repeat1, 7612), (aux_sym_stmt_list_repeat1, 2024),
     (aux_sym_ladder_diagram_repeat1, 8009), (aux_sym_fb_diagram_repeat1, 8013),
     (sym_identifier, 298), (aux_sym_ERR_unexpected_this_in_path_token1, 304),
     (aux_sym_ERR_unexpected_super_in_path_token1, 306), (sym_line_comment, 3),
     (anon_sym_LBRACE, 308), (aux_sym_test_pragma_token1, 9), (aux_sym_once_pragma_token1, 11),
     (aux_sym_must_call_pragma_token1, 13), (aux_sym_export_pragma_token1, 15),
     (anon_sym_SEMI, 310), (anon_sym_PERCENT, 312), (aux_sym_input_decls_token1, 314),
     (aux_sym_output_decls_token1, 316), (aux_sym_in_out_decls_token1, 318),
     (aux_sym_var_decls_token1, 320), (aux_sym_temp_var_decls_token1, 322),
     (aux_sym_external_var_decls_token1, 324), (aux_sym_global_var_decls_token1, 326),
     (aux_sym_fb_decl_token4, 1928), (aux_sym_method_decl_token1, 330),
     (aux_sym_prog_access_decls_token1, 332), (aux_sym_initial_step_token1, 334),
     (aux_sym_config_init_token1, 336), (aux_sym__stmt_token1, 340), (aux_sym__stmt_token2, 340),
     (aux_sym__stmt_token3, 340), (aux_sym_if_stmt_token1, 342), (aux_sym_case_stmt_token1, 344),
     (aux_sym_for_stmt_token1, 346), (aux_sym_while_stmt_token1, 348),
     (aux_sym_repeat_stmt_token1, 350), (aux_sym_raise_stmt_token1, 352),
     (aux_sym_try_stmt_token1, 354), (aux_sym_try_stmt_token2, 356),
     (aux_sym_catch_clause_token1, 356), (aux_sym_finally_clause_token1, 356), (sym_ld_rung, 358),
     (sym_fbd_network, 360), (sym_c_style_comment, 3), (sym_pascal_style_comment, 3),
     (sym_pragma, 3)]"

lemma ts_parse_row_799_scan: "row_scan tokens_63_2 0 ts_parse_row_799 = Some (Suc (Suc (Suc (Suc 0))))"
  unfolding ts_parse_row_799_def by simp

text \<open>Lines 145609 to 145721.\<close>

definition ts_parse_row_800 :: parse_row where
  "ts_parse_row_800 =
    [(sym_ERR_assign_func_call, 7530), (sym_ERR_unexpected_this_in_path, 2372),
     (sym_ERR_unexpected_super_in_path, 2372), (sym_ERR_fb_variables_after_method, 1797),
     (sym_ERR_var_access_not_allowed, 3160), (sym_ERR_var_config_not_allowed, 3160),
     (sym_ERR_var_global_not_allowed, 3160), (sym_ERR_method_decl_in_body, 3150),
     (sym_extern_pragma, 7490), (sym_wasm_pragma, 3150), (sym_warn_pragma, 7490),
     (sym_allow_pragma, 3140), (sym_test_pragma, 7490), (sym_once_pragma, 7490),
     (sym_must_call_pragma, 7490), (sym_export_pragma, 7490), (sym_pou_pragma, 7194),
     (sym_direct_variable, 7675), (sym_deref_expression, 2373), (sym_variable, 7599),
     (sym_var_access, 2373), (sym_in_out_decls, 3160), (sym_var_decls, 3160),
     (sym_retain_var_decls, 3160), (sym_temp_var_decls, 3160), (sym_external_var_decls, 3160),
     (sym_global_var_decls, 2947), (sym_loc_partly_var_decl, 3160), (sym__fb_variables, 2343),
     (sym_fb_input_decls, 3160), (sym_fb_output_decls, 3160), (sym_no_retain_var_decls, 3160),
     (sym_fb_body, 8439), (sym_method_decl, 2549), (sym_prog_access_decls, 3043), (sym_SFC, 7970),
     (sym_SFC_network, 7612), (sym_initial_step, 7439), (sym_config_init, 3047),
     (sym_variable_access, 7530), (sym_func_call, 2961), (sym_stmt_list, 7970), (sym__stmt, 2024),
     (sym_assign, 3150), (sym_if_stmt, 3150), (sym_case_stmt, 3150), (sym_for_stmt, 3150),
     (sym_while_stmt, 3150), (sym_repeat_stmt, 3150), (sym_raise_stmt, 3150), (sym_try_stmt, 3150),
     (sym_ERR_clause_outside_try, 3150), (sym_begin_path_expression, 2943), (sym_invocation, 2934),
     (sym_any_invocation, 2935), (sym_this_invocation, 2641), (sym_super_invocation, 2641),
     (sym_super_body_invocation, 2935), (sym_path_expression, 2627), (sym_field_expression, 2373),
     (sym_index_expression, 2373), (sym_ladder_diagram, 7970), (sym_fb_diagram, 7970),
     (aux_sym_ERR_fb_variables_after_method_repeat1, 2343), (aux_sym_func_decl_repeat1, 7194),
     (aux_sym_fb_decl_repeat3, 2549), (aux_sym_SFC_repeat1, 7612),
     (aux_sym_stmt_list_repeat1, 2024), (aux_sym_ladder_diagram_repeat1, 8009),
     (aux_sym_fb_diagram_repeat1, 8013), (sym_identifier, 298),
     (aux_sym_ERR_unexpected_this_in_path_token1, 304),
     (aux_sym_ERR_unexpected_super_in_path_token1, 306), (sym_line_comment, 3),
     (anon_sym_LBRACE, 308), (aux_sym_test_pragma_token1, 9), (aux_sym_once_pragma_token1, 11),
     (aux_sym_must_call_pragma_token1, 13), (aux_sym_export_pragma_token1, 15),
     (anon_sym_SEMI, 310), (anon_sym_PERCENT, 312), (aux_sym_input_decls_token1, 314),
     (aux_sym_output_decls_token1, 316), (aux_sym_in_out_decls_token1, 318),
     (aux_sym_var_decls_token1, 320), (aux_sym_temp_var_decls_token1, 322),
     (aux_sym_external_var_decls_token1, 324), (aux_sym_global_var_decls_token1, 326),
     (aux_sym_fb_decl_token4, 1930), (aux_sym_method_decl_token1, 330),
     (aux_sym_prog_access_decls_token1, 332), (aux_sym_initial_step_token1, 334),
     (aux_sym_config_init_token1, 336), (aux_sym__stmt_token1, 340), (aux_sym__stmt_token2, 340),
     (aux_sym__stmt_token3, 340), (aux_sym_if_stmt_token1, 342), (aux_sym_case_stmt_token1, 344),
     (aux_sym_for_stmt_token1, 346), (aux_sym_while_stmt_token1, 348),
     (aux_sym_repeat_stmt_token1, 350), (aux_sym_raise_stmt_token1, 352),
     (aux_sym_try_stmt_token1, 354), (aux_sym_try_stmt_token2, 356),
     (aux_sym_catch_clause_token1, 356), (aux_sym_finally_clause_token1, 356), (sym_ld_rung, 358),
     (sym_fbd_network, 360), (sym_c_style_comment, 3), (sym_pascal_style_comment, 3),
     (sym_pragma, 3)]"

lemma ts_parse_row_800_scan: "row_scan tokens_63_2 0 ts_parse_row_800 = Some (Suc (Suc (Suc (Suc 0))))"
  unfolding ts_parse_row_800_def by simp

text \<open>Lines 145722 to 145834.\<close>

definition ts_parse_row_801 :: parse_row where
  "ts_parse_row_801 =
    [(sym_ERR_assign_func_call, 7530), (sym_ERR_unexpected_this_in_path, 2372),
     (sym_ERR_unexpected_super_in_path, 2372), (sym_ERR_fb_variables_after_method, 1798),
     (sym_ERR_var_access_not_allowed, 3160), (sym_ERR_var_config_not_allowed, 3160),
     (sym_ERR_var_global_not_allowed, 3160), (sym_ERR_method_decl_in_body, 3150),
     (sym_extern_pragma, 7490), (sym_wasm_pragma, 3150), (sym_warn_pragma, 7490),
     (sym_allow_pragma, 3140), (sym_test_pragma, 7490), (sym_once_pragma, 7490),
     (sym_must_call_pragma, 7490), (sym_export_pragma, 7490), (sym_pou_pragma, 7194),
     (sym_direct_variable, 7675), (sym_deref_expression, 2373), (sym_variable, 7599),
     (sym_var_access, 2373), (sym_in_out_decls, 3160), (sym_var_decls, 3160),
     (sym_retain_var_decls, 3160), (sym_temp_var_decls, 3160), (sym_external_var_decls, 3160),
     (sym_global_var_decls, 2947), (sym_loc_partly_var_decl, 3160), (sym__fb_variables, 2343),
     (sym_fb_input_decls, 3160), (sym_fb_output_decls, 3160), (sym_no_retain_var_decls, 3160),
     (sym_fb_body, 8451), (sym_method_decl, 2549), (sym_prog_access_decls, 3043), (sym_SFC, 7970),
     (sym_SFC_network, 7612), (sym_initial_step, 7439), (sym_config_init, 3047),
     (sym_variable_access, 7530), (sym_func_call, 2961), (sym_stmt_list, 7970), (sym__stmt, 2024),
     (sym_assign, 3150), (sym_if_stmt, 3150), (sym_case_stmt, 3150), (sym_for_stmt, 3150),
     (sym_while_stmt, 3150), (sym_repeat_stmt, 3150), (sym_raise_stmt, 3150), (sym_try_stmt, 3150),
     (sym_ERR_clause_outside_try, 3150), (sym_begin_path_expression, 2943), (sym_invocation, 2934),
     (sym_any_invocation, 2935), (sym_this_invocation, 2641), (sym_super_invocation, 2641),
     (sym_super_body_invocation, 2935), (sym_path_expression, 2627), (sym_field_expression, 2373),
     (sym_index_expression, 2373), (sym_ladder_diagram, 7970), (sym_fb_diagram, 7970),
     (aux_sym_ERR_fb_variables_after_method_repeat1, 2343), (aux_sym_func_decl_repeat1, 7194),
     (aux_sym_fb_decl_repeat3, 2549), (aux_sym_SFC_repeat1, 7612),
     (aux_sym_stmt_list_repeat1, 2024), (aux_sym_ladder_diagram_repeat1, 8009),
     (aux_sym_fb_diagram_repeat1, 8013), (sym_identifier, 298),
     (aux_sym_ERR_unexpected_this_in_path_token1, 304),
     (aux_sym_ERR_unexpected_super_in_path_token1, 306), (sym_line_comment, 3),
     (anon_sym_LBRACE, 308), (aux_sym_test_pragma_token1, 9), (aux_sym_once_pragma_token1, 11),
     (aux_sym_must_call_pragma_token1, 13), (aux_sym_export_pragma_token1, 15),
     (anon_sym_SEMI, 310), (anon_sym_PERCENT, 312), (aux_sym_input_decls_token1, 314),
     (aux_sym_output_decls_token1, 316), (aux_sym_in_out_decls_token1, 318),
     (aux_sym_var_decls_token1, 320), (aux_sym_temp_var_decls_token1, 322),
     (aux_sym_external_var_decls_token1, 324), (aux_sym_global_var_decls_token1, 326),
     (aux_sym_fb_decl_token4, 1932), (aux_sym_method_decl_token1, 330),
     (aux_sym_prog_access_decls_token1, 332), (aux_sym_initial_step_token1, 334),
     (aux_sym_config_init_token1, 336), (aux_sym__stmt_token1, 340), (aux_sym__stmt_token2, 340),
     (aux_sym__stmt_token3, 340), (aux_sym_if_stmt_token1, 342), (aux_sym_case_stmt_token1, 344),
     (aux_sym_for_stmt_token1, 346), (aux_sym_while_stmt_token1, 348),
     (aux_sym_repeat_stmt_token1, 350), (aux_sym_raise_stmt_token1, 352),
     (aux_sym_try_stmt_token1, 354), (aux_sym_try_stmt_token2, 356),
     (aux_sym_catch_clause_token1, 356), (aux_sym_finally_clause_token1, 356), (sym_ld_rung, 358),
     (sym_fbd_network, 360), (sym_c_style_comment, 3), (sym_pascal_style_comment, 3),
     (sym_pragma, 3)]"

lemma ts_parse_row_801_scan: "row_scan tokens_63_2 0 ts_parse_row_801 = Some (Suc (Suc (Suc (Suc 0))))"
  unfolding ts_parse_row_801_def by simp

text \<open>Lines 145835 to 145947.\<close>

definition ts_parse_row_802 :: parse_row where
  "ts_parse_row_802 =
    [(sym_ERR_assign_func_call, 7530), (sym_ERR_unexpected_this_in_path, 2372),
     (sym_ERR_unexpected_super_in_path, 2372), (sym_ERR_fb_variables_after_method, 1799),
     (sym_ERR_var_access_not_allowed, 3160), (sym_ERR_var_config_not_allowed, 3160),
     (sym_ERR_var_global_not_allowed, 3160), (sym_ERR_method_decl_in_body, 3150),
     (sym_extern_pragma, 7490), (sym_wasm_pragma, 3150), (sym_warn_pragma, 7490),
     (sym_allow_pragma, 3140), (sym_test_pragma, 7490), (sym_once_pragma, 7490),
     (sym_must_call_pragma, 7490), (sym_export_pragma, 7490), (sym_pou_pragma, 7194),
     (sym_direct_variable, 7675), (sym_deref_expression, 2373), (sym_variable, 7599),
     (sym_var_access, 2373), (sym_in_out_decls, 3160), (sym_var_decls, 3160),
     (sym_retain_var_decls, 3160), (sym_temp_var_decls, 3160), (sym_external_var_decls, 3160),
     (sym_global_var_decls, 2947), (sym_loc_partly_var_decl, 3160), (sym__fb_variables, 2347),
     (sym_fb_input_decls, 3160), (sym_fb_output_decls, 3160), (sym_no_retain_var_decls, 3160),
     (sym_fb_body, 8457), (sym_method_decl, 835), (sym_prog_access_decls, 3043), (sym_SFC, 7970),
     (sym_SFC_network, 7612), (sym_initial_step, 7439), (sym_config_init, 3047),
     (sym_variable_access, 7530), (sym_func_call, 2961), (sym_stmt_list, 7970), (sym__stmt, 2024),
     (sym_assign, 3150), (sym_if_stmt, 3150), (sym_case_stmt, 3150), (sym_for_stmt, 3150),
     (sym_while_stmt, 3150), (sym_repeat_stmt, 3150), (sym_raise_stmt, 3150), (sym_try_stmt, 3150),
     (sym_ERR_clause_outside_try, 3150), (sym_begin_path_expression, 2943), (sym_invocation, 2934),
     (sym_any_invocation, 2935), (sym_this_invocation, 2641), (sym_super_invocation, 2641),
     (sym_super_body_invocation, 2935), (sym_path_expression, 2627), (sym_field_expression, 2373),
     (sym_index_expression, 2373), (sym_ladder_diagram, 7970), (sym_fb_diagram, 7970),
     (aux_sym_ERR_fb_variables_after_method_repeat1, 2347), (aux_sym_func_decl_repeat1, 7194),
     (aux_sym_fb_decl_repeat3, 835), (aux_sym_SFC_repeat1, 7612), (aux_sym_stmt_list_repeat1, 2024),
     (aux_sym_ladder_diagram_repeat1, 8009), (aux_sym_fb_diagram_repeat1, 8013),
     (sym_identifier, 298), (aux_sym_ERR_unexpected_this_in_path_token1, 304),
     (aux_sym_ERR_unexpected_super_in_path_token1, 306), (sym_line_comment, 3),
     (anon_sym_LBRACE, 308), (aux_sym_test_pragma_token1, 9), (aux_sym_once_pragma_token1, 11),
     (aux_sym_must_call_pragma_token1, 13), (aux_sym_export_pragma_token1, 15),
     (anon_sym_SEMI, 310), (anon_sym_PERCENT, 312), (aux_sym_input_decls_token1, 314),
     (aux_sym_output_decls_token1, 316), (aux_sym_in_out_decls_token1, 318),
     (aux_sym_var_decls_token1, 320), (aux_sym_temp_var_decls_token1, 322),
     (aux_sym_external_var_decls_token1, 324), (aux_sym_global_var_decls_token1, 326),
     (aux_sym_fb_decl_token4, 1934), (aux_sym_method_decl_token1, 330),
     (aux_sym_prog_access_decls_token1, 332), (aux_sym_initial_step_token1, 334),
     (aux_sym_config_init_token1, 336), (aux_sym__stmt_token1, 340), (aux_sym__stmt_token2, 340),
     (aux_sym__stmt_token3, 340), (aux_sym_if_stmt_token1, 342), (aux_sym_case_stmt_token1, 344),
     (aux_sym_for_stmt_token1, 346), (aux_sym_while_stmt_token1, 348),
     (aux_sym_repeat_stmt_token1, 350), (aux_sym_raise_stmt_token1, 352),
     (aux_sym_try_stmt_token1, 354), (aux_sym_try_stmt_token2, 356),
     (aux_sym_catch_clause_token1, 356), (aux_sym_finally_clause_token1, 356), (sym_ld_rung, 358),
     (sym_fbd_network, 360), (sym_c_style_comment, 3), (sym_pascal_style_comment, 3),
     (sym_pragma, 3)]"

lemma ts_parse_row_802_scan: "row_scan tokens_63_2 0 ts_parse_row_802 = Some (Suc (Suc (Suc (Suc 0))))"
  unfolding ts_parse_row_802_def by simp

text \<open>Lines 145948 to 146060.\<close>

definition ts_parse_row_803 :: parse_row where
  "ts_parse_row_803 =
    [(sym_ERR_assign_func_call, 7530), (sym_ERR_unexpected_this_in_path, 2372),
     (sym_ERR_unexpected_super_in_path, 2372), (sym_ERR_fb_variables_after_method, 1801),
     (sym_ERR_var_access_not_allowed, 3160), (sym_ERR_var_config_not_allowed, 3160),
     (sym_ERR_var_global_not_allowed, 3160), (sym_ERR_method_decl_in_body, 3150),
     (sym_extern_pragma, 7490), (sym_wasm_pragma, 3150), (sym_warn_pragma, 7490),
     (sym_allow_pragma, 3140), (sym_test_pragma, 7490), (sym_once_pragma, 7490),
     (sym_must_call_pragma, 7490), (sym_export_pragma, 7490), (sym_pou_pragma, 7194),
     (sym_direct_variable, 7675), (sym_deref_expression, 2373), (sym_variable, 7599),
     (sym_var_access, 2373), (sym_in_out_decls, 3160), (sym_var_decls, 3160),
     (sym_retain_var_decls, 3160), (sym_temp_var_decls, 3160), (sym_external_var_decls, 3160),
     (sym_global_var_decls, 2947), (sym_loc_partly_var_decl, 3160), (sym__fb_variables, 2343),
     (sym_fb_input_decls, 3160), (sym_fb_output_decls, 3160), (sym_no_retain_var_decls, 3160),
     (sym_fb_body, 8461), (sym_method_decl, 2549), (sym_prog_access_decls, 3043), (sym_SFC, 7970),
     (sym_SFC_network, 7612), (sym_initial_step, 7439), (sym_config_init, 3047),
     (sym_variable_access, 7530), (sym_func_call, 2961), (sym_stmt_list, 7970), (sym__stmt, 2024),
     (sym_assign, 3150), (sym_if_stmt, 3150), (sym_case_stmt, 3150), (sym_for_stmt, 3150),
     (sym_while_stmt, 3150), (sym_repeat_stmt, 3150), (sym_raise_stmt, 3150), (sym_try_stmt, 3150),
     (sym_ERR_clause_outside_try, 3150), (sym_begin_path_expression, 2943), (sym_invocation, 2934),
     (sym_any_invocation, 2935), (sym_this_invocation, 2641), (sym_super_invocation, 2641),
     (sym_super_body_invocation, 2935), (sym_path_expression, 2627), (sym_field_expression, 2373),
     (sym_index_expression, 2373), (sym_ladder_diagram, 7970), (sym_fb_diagram, 7970),
     (aux_sym_ERR_fb_variables_after_method_repeat1, 2343), (aux_sym_func_decl_repeat1, 7194),
     (aux_sym_fb_decl_repeat3, 2549), (aux_sym_SFC_repeat1, 7612),
     (aux_sym_stmt_list_repeat1, 2024), (aux_sym_ladder_diagram_repeat1, 8009),
     (aux_sym_fb_diagram_repeat1, 8013), (sym_identifier, 298),
     (aux_sym_ERR_unexpected_this_in_path_token1, 304),
     (aux_sym_ERR_unexpected_super_in_path_token1, 306), (sym_line_comment, 3),
     (anon_sym_LBRACE, 308), (aux_sym_test_pragma_token1, 9), (aux_sym_once_pragma_token1, 11),
     (aux_sym_must_call_pragma_token1, 13), (aux_sym_export_pragma_token1, 15),
     (anon_sym_SEMI, 310), (anon_sym_PERCENT, 312), (aux_sym_input_decls_token1, 314),
     (aux_sym_output_decls_token1, 316), (aux_sym_in_out_decls_token1, 318),
     (aux_sym_var_decls_token1, 320), (aux_sym_temp_var_decls_token1, 322),
     (aux_sym_external_var_decls_token1, 324), (aux_sym_global_var_decls_token1, 326),
     (aux_sym_fb_decl_token4, 1936), (aux_sym_method_decl_token1, 330),
     (aux_sym_prog_access_decls_token1, 332), (aux_sym_initial_step_token1, 334),
     (aux_sym_config_init_token1, 336), (aux_sym__stmt_token1, 340), (aux_sym__stmt_token2, 340),
     (aux_sym__stmt_token3, 340), (aux_sym_if_stmt_token1, 342), (aux_sym_case_stmt_token1, 344),
     (aux_sym_for_stmt_token1, 346), (aux_sym_while_stmt_token1, 348),
     (aux_sym_repeat_stmt_token1, 350), (aux_sym_raise_stmt_token1, 352),
     (aux_sym_try_stmt_token1, 354), (aux_sym_try_stmt_token2, 356),
     (aux_sym_catch_clause_token1, 356), (aux_sym_finally_clause_token1, 356), (sym_ld_rung, 358),
     (sym_fbd_network, 360), (sym_c_style_comment, 3), (sym_pascal_style_comment, 3),
     (sym_pragma, 3)]"

lemma ts_parse_row_803_scan: "row_scan tokens_63_2 0 ts_parse_row_803 = Some (Suc (Suc (Suc (Suc 0))))"
  unfolding ts_parse_row_803_def by simp

text \<open>Lines 146061 to 146173.\<close>

definition ts_parse_row_804 :: parse_row where
  "ts_parse_row_804 =
    [(sym_ERR_assign_func_call, 7530), (sym_ERR_unexpected_this_in_path, 2372),
     (sym_ERR_unexpected_super_in_path, 2372), (sym_ERR_fb_variables_after_method, 1802),
     (sym_ERR_var_access_not_allowed, 3160), (sym_ERR_var_config_not_allowed, 3160),
     (sym_ERR_var_global_not_allowed, 3160), (sym_ERR_method_decl_in_body, 3150),
     (sym_extern_pragma, 7490), (sym_wasm_pragma, 3150), (sym_warn_pragma, 7490),
     (sym_allow_pragma, 3140), (sym_test_pragma, 7490), (sym_once_pragma, 7490),
     (sym_must_call_pragma, 7490), (sym_export_pragma, 7490), (sym_pou_pragma, 7194),
     (sym_direct_variable, 7675), (sym_deref_expression, 2373), (sym_variable, 7599),
     (sym_var_access, 2373), (sym_in_out_decls, 3160), (sym_var_decls, 3160),
     (sym_retain_var_decls, 3160), (sym_temp_var_decls, 3160), (sym_external_var_decls, 3160),
     (sym_global_var_decls, 2947), (sym_loc_partly_var_decl, 3160), (sym__fb_variables, 2347),
     (sym_fb_input_decls, 3160), (sym_fb_output_decls, 3160), (sym_no_retain_var_decls, 3160),
     (sym_fb_body, 8466), (sym_method_decl, 836), (sym_prog_access_decls, 3043), (sym_SFC, 7970),
     (sym_SFC_network, 7612), (sym_initial_step, 7439), (sym_config_init, 3047),
     (sym_variable_access, 7530), (sym_func_call, 2961), (sym_stmt_list, 7970), (sym__stmt, 2024),
     (sym_assign, 3150), (sym_if_stmt, 3150), (sym_case_stmt, 3150), (sym_for_stmt, 3150),
     (sym_while_stmt, 3150), (sym_repeat_stmt, 3150), (sym_raise_stmt, 3150), (sym_try_stmt, 3150),
     (sym_ERR_clause_outside_try, 3150), (sym_begin_path_expression, 2943), (sym_invocation, 2934),
     (sym_any_invocation, 2935), (sym_this_invocation, 2641), (sym_super_invocation, 2641),
     (sym_super_body_invocation, 2935), (sym_path_expression, 2627), (sym_field_expression, 2373),
     (sym_index_expression, 2373), (sym_ladder_diagram, 7970), (sym_fb_diagram, 7970),
     (aux_sym_ERR_fb_variables_after_method_repeat1, 2347), (aux_sym_func_decl_repeat1, 7194),
     (aux_sym_fb_decl_repeat3, 836), (aux_sym_SFC_repeat1, 7612), (aux_sym_stmt_list_repeat1, 2024),
     (aux_sym_ladder_diagram_repeat1, 8009), (aux_sym_fb_diagram_repeat1, 8013),
     (sym_identifier, 298), (aux_sym_ERR_unexpected_this_in_path_token1, 304),
     (aux_sym_ERR_unexpected_super_in_path_token1, 306), (sym_line_comment, 3),
     (anon_sym_LBRACE, 308), (aux_sym_test_pragma_token1, 9), (aux_sym_once_pragma_token1, 11),
     (aux_sym_must_call_pragma_token1, 13), (aux_sym_export_pragma_token1, 15),
     (anon_sym_SEMI, 310), (anon_sym_PERCENT, 312), (aux_sym_input_decls_token1, 314),
     (aux_sym_output_decls_token1, 316), (aux_sym_in_out_decls_token1, 318),
     (aux_sym_var_decls_token1, 320), (aux_sym_temp_var_decls_token1, 322),
     (aux_sym_external_var_decls_token1, 324), (aux_sym_global_var_decls_token1, 326),
     (aux_sym_fb_decl_token4, 1938), (aux_sym_method_decl_token1, 330),
     (aux_sym_prog_access_decls_token1, 332), (aux_sym_initial_step_token1, 334),
     (aux_sym_config_init_token1, 336), (aux_sym__stmt_token1, 340), (aux_sym__stmt_token2, 340),
     (aux_sym__stmt_token3, 340), (aux_sym_if_stmt_token1, 342), (aux_sym_case_stmt_token1, 344),
     (aux_sym_for_stmt_token1, 346), (aux_sym_while_stmt_token1, 348),
     (aux_sym_repeat_stmt_token1, 350), (aux_sym_raise_stmt_token1, 352),
     (aux_sym_try_stmt_token1, 354), (aux_sym_try_stmt_token2, 356),
     (aux_sym_catch_clause_token1, 356), (aux_sym_finally_clause_token1, 356), (sym_ld_rung, 358),
     (sym_fbd_network, 360), (sym_c_style_comment, 3), (sym_pascal_style_comment, 3),
     (sym_pragma, 3)]"

lemma ts_parse_row_804_scan: "row_scan tokens_63_2 0 ts_parse_row_804 = Some (Suc (Suc (Suc (Suc 0))))"
  unfolding ts_parse_row_804_def by simp

text \<open>Lines 146174 to 146286.\<close>

definition ts_parse_row_805 :: parse_row where
  "ts_parse_row_805 =
    [(sym_ERR_assign_func_call, 7530), (sym_ERR_unexpected_this_in_path, 2372),
     (sym_ERR_unexpected_super_in_path, 2372), (sym_ERR_fb_variables_after_method, 1294),
     (sym_ERR_var_access_not_allowed, 3160), (sym_ERR_var_config_not_allowed, 3160),
     (sym_ERR_var_global_not_allowed, 3160), (sym_ERR_method_decl_in_body, 3150),
     (sym_extern_pragma, 7490), (sym_wasm_pragma, 3150), (sym_warn_pragma, 7490),
     (sym_allow_pragma, 3140), (sym_test_pragma, 7490), (sym_once_pragma, 7490),
     (sym_must_call_pragma, 7490), (sym_export_pragma, 7490), (sym_pou_pragma, 7194),
     (sym_direct_variable, 7675), (sym_deref_expression, 2373), (sym_variable, 7599),
     (sym_var_access, 2373), (sym_in_out_decls, 3160), (sym_var_decls, 3160),
     (sym_retain_var_decls, 3160), (sym_temp_var_decls, 3160), (sym_external_var_decls, 3160),
     (sym_global_var_decls, 2947), (sym_loc_partly_var_decl, 3160), (sym__fb_variables, 2347),
     (sym_fb_input_decls, 3160), (sym_fb_output_decls, 3160), (sym_no_retain_var_decls, 3160),
     (sym_fb_body, 9832), (sym_method_decl, 680), (sym_prog_access_decls, 3043), (sym_SFC, 7970),
     (sym_SFC_network, 7612), (sym_initial_step, 7439), (sym_config_init, 3047),
     (sym_variable_access, 7530), (sym_func_call, 2961), (sym_stmt_list, 7970), (sym__stmt, 2024),
     (sym_assign, 3150), (sym_if_stmt, 3150), (sym_case_stmt, 3150), (sym_for_stmt, 3150),
     (sym_while_stmt, 3150), (sym_repeat_stmt, 3150), (sym_raise_stmt, 3150), (sym_try_stmt, 3150),
     (sym_ERR_clause_outside_try, 3150), (sym_begin_path_expression, 2943), (sym_invocation, 2934),
     (sym_any_invocation, 2935), (sym_this_invocation, 2641), (sym_super_invocation, 2641),
     (sym_super_body_invocation, 2935), (sym_path_expression, 2627), (sym_field_expression, 2373),
     (sym_index_expression, 2373), (sym_ladder_diagram, 7970), (sym_fb_diagram, 7970),
     (aux_sym_ERR_fb_variables_after_method_repeat1, 2347), (aux_sym_func_decl_repeat1, 7194),
     (aux_sym_fb_decl_repeat3, 680), (aux_sym_SFC_repeat1, 7612), (aux_sym_stmt_list_repeat1, 2024),
     (aux_sym_ladder_diagram_repeat1, 8009), (aux_sym_fb_diagram_repeat1, 8013),
     (sym_identifier, 298), (aux_sym_ERR_unexpected_this_in_path_token1, 304),
     (aux_sym_ERR_unexpected_super_in_path_token1, 306), (sym_line_comment, 3),
     (anon_sym_LBRACE, 308), (aux_sym_test_pragma_token1, 9), (aux_sym_once_pragma_token1, 11),
     (aux_sym_must_call_pragma_token1, 13), (aux_sym_export_pragma_token1, 15),
     (anon_sym_SEMI, 310), (anon_sym_PERCENT, 312), (aux_sym_input_decls_token1, 314),
     (aux_sym_output_decls_token1, 316), (aux_sym_in_out_decls_token1, 318),
     (aux_sym_var_decls_token1, 320), (aux_sym_temp_var_decls_token1, 322),
     (aux_sym_external_var_decls_token1, 324), (aux_sym_global_var_decls_token1, 326),
     (aux_sym_fb_decl_token4, 1940), (aux_sym_method_decl_token1, 330),
     (aux_sym_prog_access_decls_token1, 332), (aux_sym_initial_step_token1, 334),
     (aux_sym_config_init_token1, 336), (aux_sym__stmt_token1, 340), (aux_sym__stmt_token2, 340),
     (aux_sym__stmt_token3, 340), (aux_sym_if_stmt_token1, 342), (aux_sym_case_stmt_token1, 344),
     (aux_sym_for_stmt_token1, 346), (aux_sym_while_stmt_token1, 348),
     (aux_sym_repeat_stmt_token1, 350), (aux_sym_raise_stmt_token1, 352),
     (aux_sym_try_stmt_token1, 354), (aux_sym_try_stmt_token2, 356),
     (aux_sym_catch_clause_token1, 356), (aux_sym_finally_clause_token1, 356), (sym_ld_rung, 358),
     (sym_fbd_network, 360), (sym_c_style_comment, 3), (sym_pascal_style_comment, 3),
     (sym_pragma, 3)]"

lemma ts_parse_row_805_scan: "row_scan tokens_63_2 0 ts_parse_row_805 = Some (Suc (Suc (Suc (Suc 0))))"
  unfolding ts_parse_row_805_def by simp

text \<open>Lines 146287 to 146399.\<close>

definition ts_parse_row_806 :: parse_row where
  "ts_parse_row_806 =
    [(sym_ERR_assign_func_call, 7530), (sym_ERR_unexpected_this_in_path, 2372),
     (sym_ERR_unexpected_super_in_path, 2372), (sym_ERR_fb_variables_after_method, 1806),
     (sym_ERR_var_access_not_allowed, 3160), (sym_ERR_var_config_not_allowed, 3160),
     (sym_ERR_var_global_not_allowed, 3160), (sym_ERR_method_decl_in_body, 3150),
     (sym_extern_pragma, 7490), (sym_wasm_pragma, 3150), (sym_warn_pragma, 7490),
     (sym_allow_pragma, 3140), (sym_test_pragma, 7490), (sym_once_pragma, 7490),
     (sym_must_call_pragma, 7490), (sym_export_pragma, 7490), (sym_pou_pragma, 7194),
     (sym_direct_variable, 7675), (sym_deref_expression, 2373), (sym_variable, 7599),
     (sym_var_access, 2373), (sym_in_out_decls, 3160), (sym_var_decls, 3160),
     (sym_retain_var_decls, 3160), (sym_temp_var_decls, 3160), (sym_external_var_decls, 3160),
     (sym_global_var_decls, 2947), (sym_loc_partly_var_decl, 3160), (sym__fb_variables, 2343),
     (sym_fb_input_decls, 3160), (sym_fb_output_decls, 3160), (sym_no_retain_var_decls, 3160),
     (sym_fb_body, 8475), (sym_method_decl, 2549), (sym_prog_access_decls, 3043), (sym_SFC, 7970),
     (sym_SFC_network, 7612), (sym_initial_step, 7439), (sym_config_init, 3047),
     (sym_variable_access, 7530), (sym_func_call, 2961), (sym_stmt_list, 7970), (sym__stmt, 2024),
     (sym_assign, 3150), (sym_if_stmt, 3150), (sym_case_stmt, 3150), (sym_for_stmt, 3150),
     (sym_while_stmt, 3150), (sym_repeat_stmt, 3150), (sym_raise_stmt, 3150), (sym_try_stmt, 3150),
     (sym_ERR_clause_outside_try, 3150), (sym_begin_path_expression, 2943), (sym_invocation, 2934),
     (sym_any_invocation, 2935), (sym_this_invocation, 2641), (sym_super_invocation, 2641),
     (sym_super_body_invocation, 2935), (sym_path_expression, 2627), (sym_field_expression, 2373),
     (sym_index_expression, 2373), (sym_ladder_diagram, 7970), (sym_fb_diagram, 7970),
     (aux_sym_ERR_fb_variables_after_method_repeat1, 2343), (aux_sym_func_decl_repeat1, 7194),
     (aux_sym_fb_decl_repeat3, 2549), (aux_sym_SFC_repeat1, 7612),
     (aux_sym_stmt_list_repeat1, 2024), (aux_sym_ladder_diagram_repeat1, 8009),
     (aux_sym_fb_diagram_repeat1, 8013), (sym_identifier, 298),
     (aux_sym_ERR_unexpected_this_in_path_token1, 304),
     (aux_sym_ERR_unexpected_super_in_path_token1, 306), (sym_line_comment, 3),
     (anon_sym_LBRACE, 308), (aux_sym_test_pragma_token1, 9), (aux_sym_once_pragma_token1, 11),
     (aux_sym_must_call_pragma_token1, 13), (aux_sym_export_pragma_token1, 15),
     (anon_sym_SEMI, 310), (anon_sym_PERCENT, 312), (aux_sym_input_decls_token1, 314),
     (aux_sym_output_decls_token1, 316), (aux_sym_in_out_decls_token1, 318),
     (aux_sym_var_decls_token1, 320), (aux_sym_temp_var_decls_token1, 322),
     (aux_sym_external_var_decls_token1, 324), (aux_sym_global_var_decls_token1, 326),
     (aux_sym_fb_decl_token4, 1942), (aux_sym_method_decl_token1, 330),
     (aux_sym_prog_access_decls_token1, 332), (aux_sym_initial_step_token1, 334),
     (aux_sym_config_init_token1, 336), (aux_sym__stmt_token1, 340), (aux_sym__stmt_token2, 340),
     (aux_sym__stmt_token3, 340), (aux_sym_if_stmt_token1, 342), (aux_sym_case_stmt_token1, 344),
     (aux_sym_for_stmt_token1, 346), (aux_sym_while_stmt_token1, 348),
     (aux_sym_repeat_stmt_token1, 350), (aux_sym_raise_stmt_token1, 352),
     (aux_sym_try_stmt_token1, 354), (aux_sym_try_stmt_token2, 356),
     (aux_sym_catch_clause_token1, 356), (aux_sym_finally_clause_token1, 356), (sym_ld_rung, 358),
     (sym_fbd_network, 360), (sym_c_style_comment, 3), (sym_pascal_style_comment, 3),
     (sym_pragma, 3)]"

lemma ts_parse_row_806_scan: "row_scan tokens_63_2 0 ts_parse_row_806 = Some (Suc (Suc (Suc (Suc 0))))"
  unfolding ts_parse_row_806_def by simp

text \<open>Lines 146400 to 146512.\<close>

definition ts_parse_row_807 :: parse_row where
  "ts_parse_row_807 =
    [(sym_ERR_assign_func_call, 7530), (sym_ERR_unexpected_this_in_path, 2372),
     (sym_ERR_unexpected_super_in_path, 2372), (sym_ERR_fb_variables_after_method, 1807),
     (sym_ERR_var_access_not_allowed, 3160), (sym_ERR_var_config_not_allowed, 3160),
     (sym_ERR_var_global_not_allowed, 3160), (sym_ERR_method_decl_in_body, 3150),
     (sym_extern_pragma, 7490), (sym_wasm_pragma, 3150), (sym_warn_pragma, 7490),
     (sym_allow_pragma, 3140), (sym_test_pragma, 7490), (sym_once_pragma, 7490),
     (sym_must_call_pragma, 7490), (sym_export_pragma, 7490), (sym_pou_pragma, 7194),
     (sym_direct_variable, 7675), (sym_deref_expression, 2373), (sym_variable, 7599),
     (sym_var_access, 2373), (sym_in_out_decls, 3160), (sym_var_decls, 3160),
     (sym_retain_var_decls, 3160), (sym_temp_var_decls, 3160), (sym_external_var_decls, 3160),
     (sym_global_var_decls, 2947), (sym_loc_partly_var_decl, 3160), (sym__fb_variables, 2343),
     (sym_fb_input_decls, 3160), (sym_fb_output_decls, 3160), (sym_no_retain_var_decls, 3160),
     (sym_fb_body, 8495), (sym_method_decl, 2549), (sym_prog_access_decls, 3043), (sym_SFC, 7970),
     (sym_SFC_network, 7612), (sym_initial_step, 7439), (sym_config_init, 3047),
     (sym_variable_access, 7530), (sym_func_call, 2961), (sym_stmt_list, 7970), (sym__stmt, 2024),
     (sym_assign, 3150), (sym_if_stmt, 3150), (sym_case_stmt, 3150), (sym_for_stmt, 3150),
     (sym_while_stmt, 3150), (sym_repeat_stmt, 3150), (sym_raise_stmt, 3150), (sym_try_stmt, 3150),
     (sym_ERR_clause_outside_try, 3150), (sym_begin_path_expression, 2943), (sym_invocation, 2934),
     (sym_any_invocation, 2935), (sym_this_invocation, 2641), (sym_super_invocation, 2641),
     (sym_super_body_invocation, 2935), (sym_path_expression, 2627), (sym_field_expression, 2373),
     (sym_index_expression, 2373), (sym_ladder_diagram, 7970), (sym_fb_diagram, 7970),
     (aux_sym_ERR_fb_variables_after_method_repeat1, 2343), (aux_sym_func_decl_repeat1, 7194),
     (aux_sym_fb_decl_repeat3, 2549), (aux_sym_SFC_repeat1, 7612),
     (aux_sym_stmt_list_repeat1, 2024), (aux_sym_ladder_diagram_repeat1, 8009),
     (aux_sym_fb_diagram_repeat1, 8013), (sym_identifier, 298),
     (aux_sym_ERR_unexpected_this_in_path_token1, 304),
     (aux_sym_ERR_unexpected_super_in_path_token1, 306), (sym_line_comment, 3),
     (anon_sym_LBRACE, 308), (aux_sym_test_pragma_token1, 9), (aux_sym_once_pragma_token1, 11),
     (aux_sym_must_call_pragma_token1, 13), (aux_sym_export_pragma_token1, 15),
     (anon_sym_SEMI, 310), (anon_sym_PERCENT, 312), (aux_sym_input_decls_token1, 314),
     (aux_sym_output_decls_token1, 316), (aux_sym_in_out_decls_token1, 318),
     (aux_sym_var_decls_token1, 320), (aux_sym_temp_var_decls_token1, 322),
     (aux_sym_external_var_decls_token1, 324), (aux_sym_global_var_decls_token1, 326),
     (aux_sym_fb_decl_token4, 1944), (aux_sym_method_decl_token1, 330),
     (aux_sym_prog_access_decls_token1, 332), (aux_sym_initial_step_token1, 334),
     (aux_sym_config_init_token1, 336), (aux_sym__stmt_token1, 340), (aux_sym__stmt_token2, 340),
     (aux_sym__stmt_token3, 340), (aux_sym_if_stmt_token1, 342), (aux_sym_case_stmt_token1, 344),
     (aux_sym_for_stmt_token1, 346), (aux_sym_while_stmt_token1, 348),
     (aux_sym_repeat_stmt_token1, 350), (aux_sym_raise_stmt_token1, 352),
     (aux_sym_try_stmt_token1, 354), (aux_sym_try_stmt_token2, 356),
     (aux_sym_catch_clause_token1, 356), (aux_sym_finally_clause_token1, 356), (sym_ld_rung, 358),
     (sym_fbd_network, 360), (sym_c_style_comment, 3), (sym_pascal_style_comment, 3),
     (sym_pragma, 3)]"

lemma ts_parse_row_807_scan: "row_scan tokens_63_2 0 ts_parse_row_807 = Some (Suc (Suc (Suc (Suc 0))))"
  unfolding ts_parse_row_807_def by simp

text \<open>Lines 146513 to 146625.\<close>

definition ts_parse_row_808 :: parse_row where
  "ts_parse_row_808 =
    [(sym_ERR_assign_func_call, 7530), (sym_ERR_unexpected_this_in_path, 2372),
     (sym_ERR_unexpected_super_in_path, 2372), (sym_ERR_fb_variables_after_method, 1808),
     (sym_ERR_var_access_not_allowed, 3160), (sym_ERR_var_config_not_allowed, 3160),
     (sym_ERR_var_global_not_allowed, 3160), (sym_ERR_method_decl_in_body, 3150),
     (sym_extern_pragma, 7490), (sym_wasm_pragma, 3150), (sym_warn_pragma, 7490),
     (sym_allow_pragma, 3140), (sym_test_pragma, 7490), (sym_once_pragma, 7490),
     (sym_must_call_pragma, 7490), (sym_export_pragma, 7490), (sym_pou_pragma, 7194),
     (sym_direct_variable, 7675), (sym_deref_expression, 2373), (sym_variable, 7599),
     (sym_var_access, 2373), (sym_in_out_decls, 3160), (sym_var_decls, 3160),
     (sym_retain_var_decls, 3160), (sym_temp_var_decls, 3160), (sym_external_var_decls, 3160),
     (sym_global_var_decls, 2947), (sym_loc_partly_var_decl, 3160), (sym__fb_variables, 2343),
     (sym_fb_input_decls, 3160), (sym_fb_output_decls, 3160), (sym_no_retain_var_decls, 3160),
     (sym_fb_body, 8516), (sym_method_decl, 2549), (sym_prog_access_decls, 3043), (sym_SFC, 7970),
     (sym_SFC_network, 7612), (sym_initial_step, 7439), (sym_config_init, 3047),
     (sym_variable_access, 7530), (sym_func_call, 2961), (sym_stmt_list, 7970), (sym__stmt, 2024),
     (sym_assign, 3150), (sym_if_stmt, 3150), (sym_case_stmt, 3150), (sym_for_stmt, 3150),
     (sym_while_stmt, 3150), (sym_repeat_stmt, 3150), (sym_raise_stmt, 3150), (sym_try_stmt, 3150),
     (sym_ERR_clause_outside_try, 3150), (sym_begin_path_expression, 2943), (sym_invocation, 2934),
     (sym_any_invocation, 2935), (sym_this_invocation, 2641), (sym_super_invocation, 2641),
     (sym_super_body_invocation, 2935), (sym_path_expression, 2627), (sym_field_expression, 2373),
     (sym_index_expression, 2373), (sym_ladder_diagram, 7970), (sym_fb_diagram, 7970),
     (aux_sym_ERR_fb_variables_after_method_repeat1, 2343), (aux_sym_func_decl_repeat1, 7194),
     (aux_sym_fb_decl_repeat3, 2549), (aux_sym_SFC_repeat1, 7612),
     (aux_sym_stmt_list_repeat1, 2024), (aux_sym_ladder_diagram_repeat1, 8009),
     (aux_sym_fb_diagram_repeat1, 8013), (sym_identifier, 298),
     (aux_sym_ERR_unexpected_this_in_path_token1, 304),
     (aux_sym_ERR_unexpected_super_in_path_token1, 306), (sym_line_comment, 3),
     (anon_sym_LBRACE, 308), (aux_sym_test_pragma_token1, 9), (aux_sym_once_pragma_token1, 11),
     (aux_sym_must_call_pragma_token1, 13), (aux_sym_export_pragma_token1, 15),
     (anon_sym_SEMI, 310), (anon_sym_PERCENT, 312), (aux_sym_input_decls_token1, 314),
     (aux_sym_output_decls_token1, 316), (aux_sym_in_out_decls_token1, 318),
     (aux_sym_var_decls_token1, 320), (aux_sym_temp_var_decls_token1, 322),
     (aux_sym_external_var_decls_token1, 324), (aux_sym_global_var_decls_token1, 326),
     (aux_sym_fb_decl_token4, 1946), (aux_sym_method_decl_token1, 330),
     (aux_sym_prog_access_decls_token1, 332), (aux_sym_initial_step_token1, 334),
     (aux_sym_config_init_token1, 336), (aux_sym__stmt_token1, 340), (aux_sym__stmt_token2, 340),
     (aux_sym__stmt_token3, 340), (aux_sym_if_stmt_token1, 342), (aux_sym_case_stmt_token1, 344),
     (aux_sym_for_stmt_token1, 346), (aux_sym_while_stmt_token1, 348),
     (aux_sym_repeat_stmt_token1, 350), (aux_sym_raise_stmt_token1, 352),
     (aux_sym_try_stmt_token1, 354), (aux_sym_try_stmt_token2, 356),
     (aux_sym_catch_clause_token1, 356), (aux_sym_finally_clause_token1, 356), (sym_ld_rung, 358),
     (sym_fbd_network, 360), (sym_c_style_comment, 3), (sym_pascal_style_comment, 3),
     (sym_pragma, 3)]"

lemma ts_parse_row_808_scan: "row_scan tokens_63_2 0 ts_parse_row_808 = Some (Suc (Suc (Suc (Suc 0))))"
  unfolding ts_parse_row_808_def by simp

text \<open>Lines 146626 to 146738.\<close>

definition ts_parse_row_809 :: parse_row where
  "ts_parse_row_809 =
    [(sym_ERR_assign_func_call, 7530), (sym_ERR_unexpected_this_in_path, 2372),
     (sym_ERR_unexpected_super_in_path, 2372), (sym_ERR_fb_variables_after_method, 1809),
     (sym_ERR_var_access_not_allowed, 3160), (sym_ERR_var_config_not_allowed, 3160),
     (sym_ERR_var_global_not_allowed, 3160), (sym_ERR_method_decl_in_body, 3150),
     (sym_extern_pragma, 7490), (sym_wasm_pragma, 3150), (sym_warn_pragma, 7490),
     (sym_allow_pragma, 3140), (sym_test_pragma, 7490), (sym_once_pragma, 7490),
     (sym_must_call_pragma, 7490), (sym_export_pragma, 7490), (sym_pou_pragma, 7194),
     (sym_direct_variable, 7675), (sym_deref_expression, 2373), (sym_variable, 7599),
     (sym_var_access, 2373), (sym_in_out_decls, 3160), (sym_var_decls, 3160),
     (sym_retain_var_decls, 3160), (sym_temp_var_decls, 3160), (sym_external_var_decls, 3160),
     (sym_global_var_decls, 2947), (sym_loc_partly_var_decl, 3160), (sym__fb_variables, 2343),
     (sym_fb_input_decls, 3160), (sym_fb_output_decls, 3160), (sym_no_retain_var_decls, 3160),
     (sym_fb_body, 8546), (sym_method_decl, 2549), (sym_prog_access_decls, 3043), (sym_SFC, 7970),
     (sym_SFC_network, 7612), (sym_initial_step, 7439), (sym_config_init, 3047),
     (sym_variable_access, 7530), (sym_func_call, 2961), (sym_stmt_list, 7970), (sym__stmt, 2024),
     (sym_assign, 3150), (sym_if_stmt, 3150), (sym_case_stmt, 3150), (sym_for_stmt, 3150),
     (sym_while_stmt, 3150), (sym_repeat_stmt, 3150), (sym_raise_stmt, 3150), (sym_try_stmt, 3150),
     (sym_ERR_clause_outside_try, 3150), (sym_begin_path_expression, 2943), (sym_invocation, 2934),
     (sym_any_invocation, 2935), (sym_this_invocation, 2641), (sym_super_invocation, 2641),
     (sym_super_body_invocation, 2935), (sym_path_expression, 2627), (sym_field_expression, 2373),
     (sym_index_expression, 2373), (sym_ladder_diagram, 7970), (sym_fb_diagram, 7970),
     (aux_sym_ERR_fb_variables_after_method_repeat1, 2343), (aux_sym_func_decl_repeat1, 7194),
     (aux_sym_fb_decl_repeat3, 2549), (aux_sym_SFC_repeat1, 7612),
     (aux_sym_stmt_list_repeat1, 2024), (aux_sym_ladder_diagram_repeat1, 8009),
     (aux_sym_fb_diagram_repeat1, 8013), (sym_identifier, 298),
     (aux_sym_ERR_unexpected_this_in_path_token1, 304),
     (aux_sym_ERR_unexpected_super_in_path_token1, 306), (sym_line_comment, 3),
     (anon_sym_LBRACE, 308), (aux_sym_test_pragma_token1, 9), (aux_sym_once_pragma_token1, 11),
     (aux_sym_must_call_pragma_token1, 13), (aux_sym_export_pragma_token1, 15),
     (anon_sym_SEMI, 310), (anon_sym_PERCENT, 312), (aux_sym_input_decls_token1, 314),
     (aux_sym_output_decls_token1, 316), (aux_sym_in_out_decls_token1, 318),
     (aux_sym_var_decls_token1, 320), (aux_sym_temp_var_decls_token1, 322),
     (aux_sym_external_var_decls_token1, 324), (aux_sym_global_var_decls_token1, 326),
     (aux_sym_fb_decl_token4, 1948), (aux_sym_method_decl_token1, 330),
     (aux_sym_prog_access_decls_token1, 332), (aux_sym_initial_step_token1, 334),
     (aux_sym_config_init_token1, 336), (aux_sym__stmt_token1, 340), (aux_sym__stmt_token2, 340),
     (aux_sym__stmt_token3, 340), (aux_sym_if_stmt_token1, 342), (aux_sym_case_stmt_token1, 344),
     (aux_sym_for_stmt_token1, 346), (aux_sym_while_stmt_token1, 348),
     (aux_sym_repeat_stmt_token1, 350), (aux_sym_raise_stmt_token1, 352),
     (aux_sym_try_stmt_token1, 354), (aux_sym_try_stmt_token2, 356),
     (aux_sym_catch_clause_token1, 356), (aux_sym_finally_clause_token1, 356), (sym_ld_rung, 358),
     (sym_fbd_network, 360), (sym_c_style_comment, 3), (sym_pascal_style_comment, 3),
     (sym_pragma, 3)]"

lemma ts_parse_row_809_scan: "row_scan tokens_63_2 0 ts_parse_row_809 = Some (Suc (Suc (Suc (Suc 0))))"
  unfolding ts_parse_row_809_def by simp

text \<open>Lines 146739 to 146851.\<close>

definition ts_parse_row_810 :: parse_row where
  "ts_parse_row_810 =
    [(sym_ERR_assign_func_call, 7530), (sym_ERR_unexpected_this_in_path, 2372),
     (sym_ERR_unexpected_super_in_path, 2372), (sym_ERR_fb_variables_after_method, 1810),
     (sym_ERR_var_access_not_allowed, 3160), (sym_ERR_var_config_not_allowed, 3160),
     (sym_ERR_var_global_not_allowed, 3160), (sym_ERR_method_decl_in_body, 3150),
     (sym_extern_pragma, 7490), (sym_wasm_pragma, 3150), (sym_warn_pragma, 7490),
     (sym_allow_pragma, 3140), (sym_test_pragma, 7490), (sym_once_pragma, 7490),
     (sym_must_call_pragma, 7490), (sym_export_pragma, 7490), (sym_pou_pragma, 7194),
     (sym_direct_variable, 7675), (sym_deref_expression, 2373), (sym_variable, 7599),
     (sym_var_access, 2373), (sym_in_out_decls, 3160), (sym_var_decls, 3160),
     (sym_retain_var_decls, 3160), (sym_temp_var_decls, 3160), (sym_external_var_decls, 3160),
     (sym_global_var_decls, 2947), (sym_loc_partly_var_decl, 3160), (sym__fb_variables, 2343),
     (sym_fb_input_decls, 3160), (sym_fb_output_decls, 3160), (sym_no_retain_var_decls, 3160),
     (sym_fb_body, 8569), (sym_method_decl, 2549), (sym_prog_access_decls, 3043), (sym_SFC, 7970),
     (sym_SFC_network, 7612), (sym_initial_step, 7439), (sym_config_init, 3047),
     (sym_variable_access, 7530), (sym_func_call, 2961), (sym_stmt_list, 7970), (sym__stmt, 2024),
     (sym_assign, 3150), (sym_if_stmt, 3150), (sym_case_stmt, 3150), (sym_for_stmt, 3150),
     (sym_while_stmt, 3150), (sym_repeat_stmt, 3150), (sym_raise_stmt, 3150), (sym_try_stmt, 3150),
     (sym_ERR_clause_outside_try, 3150), (sym_begin_path_expression, 2943), (sym_invocation, 2934),
     (sym_any_invocation, 2935), (sym_this_invocation, 2641), (sym_super_invocation, 2641),
     (sym_super_body_invocation, 2935), (sym_path_expression, 2627), (sym_field_expression, 2373),
     (sym_index_expression, 2373), (sym_ladder_diagram, 7970), (sym_fb_diagram, 7970),
     (aux_sym_ERR_fb_variables_after_method_repeat1, 2343), (aux_sym_func_decl_repeat1, 7194),
     (aux_sym_fb_decl_repeat3, 2549), (aux_sym_SFC_repeat1, 7612),
     (aux_sym_stmt_list_repeat1, 2024), (aux_sym_ladder_diagram_repeat1, 8009),
     (aux_sym_fb_diagram_repeat1, 8013), (sym_identifier, 298),
     (aux_sym_ERR_unexpected_this_in_path_token1, 304),
     (aux_sym_ERR_unexpected_super_in_path_token1, 306), (sym_line_comment, 3),
     (anon_sym_LBRACE, 308), (aux_sym_test_pragma_token1, 9), (aux_sym_once_pragma_token1, 11),
     (aux_sym_must_call_pragma_token1, 13), (aux_sym_export_pragma_token1, 15),
     (anon_sym_SEMI, 310), (anon_sym_PERCENT, 312), (aux_sym_input_decls_token1, 314),
     (aux_sym_output_decls_token1, 316), (aux_sym_in_out_decls_token1, 318),
     (aux_sym_var_decls_token1, 320), (aux_sym_temp_var_decls_token1, 322),
     (aux_sym_external_var_decls_token1, 324), (aux_sym_global_var_decls_token1, 326),
     (aux_sym_fb_decl_token4, 1950), (aux_sym_method_decl_token1, 330),
     (aux_sym_prog_access_decls_token1, 332), (aux_sym_initial_step_token1, 334),
     (aux_sym_config_init_token1, 336), (aux_sym__stmt_token1, 340), (aux_sym__stmt_token2, 340),
     (aux_sym__stmt_token3, 340), (aux_sym_if_stmt_token1, 342), (aux_sym_case_stmt_token1, 344),
     (aux_sym_for_stmt_token1, 346), (aux_sym_while_stmt_token1, 348),
     (aux_sym_repeat_stmt_token1, 350), (aux_sym_raise_stmt_token1, 352),
     (aux_sym_try_stmt_token1, 354), (aux_sym_try_stmt_token2, 356),
     (aux_sym_catch_clause_token1, 356), (aux_sym_finally_clause_token1, 356), (sym_ld_rung, 358),
     (sym_fbd_network, 360), (sym_c_style_comment, 3), (sym_pascal_style_comment, 3),
     (sym_pragma, 3)]"

lemma ts_parse_row_810_scan: "row_scan tokens_63_2 0 ts_parse_row_810 = Some (Suc (Suc (Suc (Suc 0))))"
  unfolding ts_parse_row_810_def by simp

text \<open>Lines 146852 to 146964.\<close>

definition ts_parse_row_811 :: parse_row where
  "ts_parse_row_811 =
    [(sym_ERR_assign_func_call, 7530), (sym_ERR_unexpected_this_in_path, 2372),
     (sym_ERR_unexpected_super_in_path, 2372), (sym_ERR_fb_variables_after_method, 1811),
     (sym_ERR_var_access_not_allowed, 3160), (sym_ERR_var_config_not_allowed, 3160),
     (sym_ERR_var_global_not_allowed, 3160), (sym_ERR_method_decl_in_body, 3150),
     (sym_extern_pragma, 7490), (sym_wasm_pragma, 3150), (sym_warn_pragma, 7490),
     (sym_allow_pragma, 3140), (sym_test_pragma, 7490), (sym_once_pragma, 7490),
     (sym_must_call_pragma, 7490), (sym_export_pragma, 7490), (sym_pou_pragma, 7194),
     (sym_direct_variable, 7675), (sym_deref_expression, 2373), (sym_variable, 7599),
     (sym_var_access, 2373), (sym_in_out_decls, 3160), (sym_var_decls, 3160),
     (sym_retain_var_decls, 3160), (sym_temp_var_decls, 3160), (sym_external_var_decls, 3160),
     (sym_global_var_decls, 2947), (sym_loc_partly_var_decl, 3160), (sym__fb_variables, 2343),
     (sym_fb_input_decls, 3160), (sym_fb_output_decls, 3160), (sym_no_retain_var_decls, 3160),
     (sym_fb_body, 8584), (sym_method_decl, 2549), (sym_prog_access_decls, 3043), (sym_SFC, 7970),
     (sym_SFC_network, 7612), (sym_initial_step, 7439), (sym_config_init, 3047),
     (sym_variable_access, 7530), (sym_func_call, 2961), (sym_stmt_list, 7970), (sym__stmt, 2024),
     (sym_assign, 3150), (sym_if_stmt, 3150), (sym_case_stmt, 3150), (sym_for_stmt, 3150),
     (sym_while_stmt, 3150), (sym_repeat_stmt, 3150), (sym_raise_stmt, 3150), (sym_try_stmt, 3150),
     (sym_ERR_clause_outside_try, 3150), (sym_begin_path_expression, 2943), (sym_invocation, 2934),
     (sym_any_invocation, 2935), (sym_this_invocation, 2641), (sym_super_invocation, 2641),
     (sym_super_body_invocation, 2935), (sym_path_expression, 2627), (sym_field_expression, 2373),
     (sym_index_expression, 2373), (sym_ladder_diagram, 7970), (sym_fb_diagram, 7970),
     (aux_sym_ERR_fb_variables_after_method_repeat1, 2343), (aux_sym_func_decl_repeat1, 7194),
     (aux_sym_fb_decl_repeat3, 2549), (aux_sym_SFC_repeat1, 7612),
     (aux_sym_stmt_list_repeat1, 2024), (aux_sym_ladder_diagram_repeat1, 8009),
     (aux_sym_fb_diagram_repeat1, 8013), (sym_identifier, 298),
     (aux_sym_ERR_unexpected_this_in_path_token1, 304),
     (aux_sym_ERR_unexpected_super_in_path_token1, 306), (sym_line_comment, 3),
     (anon_sym_LBRACE, 308), (aux_sym_test_pragma_token1, 9), (aux_sym_once_pragma_token1, 11),
     (aux_sym_must_call_pragma_token1, 13), (aux_sym_export_pragma_token1, 15),
     (anon_sym_SEMI, 310), (anon_sym_PERCENT, 312), (aux_sym_input_decls_token1, 314),
     (aux_sym_output_decls_token1, 316), (aux_sym_in_out_decls_token1, 318),
     (aux_sym_var_decls_token1, 320), (aux_sym_temp_var_decls_token1, 322),
     (aux_sym_external_var_decls_token1, 324), (aux_sym_global_var_decls_token1, 326),
     (aux_sym_fb_decl_token4, 1952), (aux_sym_method_decl_token1, 330),
     (aux_sym_prog_access_decls_token1, 332), (aux_sym_initial_step_token1, 334),
     (aux_sym_config_init_token1, 336), (aux_sym__stmt_token1, 340), (aux_sym__stmt_token2, 340),
     (aux_sym__stmt_token3, 340), (aux_sym_if_stmt_token1, 342), (aux_sym_case_stmt_token1, 344),
     (aux_sym_for_stmt_token1, 346), (aux_sym_while_stmt_token1, 348),
     (aux_sym_repeat_stmt_token1, 350), (aux_sym_raise_stmt_token1, 352),
     (aux_sym_try_stmt_token1, 354), (aux_sym_try_stmt_token2, 356),
     (aux_sym_catch_clause_token1, 356), (aux_sym_finally_clause_token1, 356), (sym_ld_rung, 358),
     (sym_fbd_network, 360), (sym_c_style_comment, 3), (sym_pascal_style_comment, 3),
     (sym_pragma, 3)]"

lemma ts_parse_row_811_scan: "row_scan tokens_63_2 0 ts_parse_row_811 = Some (Suc (Suc (Suc (Suc 0))))"
  unfolding ts_parse_row_811_def by simp

text \<open>Lines 146965 to 147077.\<close>

definition ts_parse_row_812 :: parse_row where
  "ts_parse_row_812 =
    [(sym_ERR_assign_func_call, 7530), (sym_ERR_unexpected_this_in_path, 2372),
     (sym_ERR_unexpected_super_in_path, 2372), (sym_ERR_fb_variables_after_method, 1812),
     (sym_ERR_var_access_not_allowed, 3160), (sym_ERR_var_config_not_allowed, 3160),
     (sym_ERR_var_global_not_allowed, 3160), (sym_ERR_method_decl_in_body, 3150),
     (sym_extern_pragma, 7490), (sym_wasm_pragma, 3150), (sym_warn_pragma, 7490),
     (sym_allow_pragma, 3140), (sym_test_pragma, 7490), (sym_once_pragma, 7490),
     (sym_must_call_pragma, 7490), (sym_export_pragma, 7490), (sym_pou_pragma, 7194),
     (sym_direct_variable, 7675), (sym_deref_expression, 2373), (sym_variable, 7599),
     (sym_var_access, 2373), (sym_in_out_decls, 3160), (sym_var_decls, 3160),
     (sym_retain_var_decls, 3160), (sym_temp_var_decls, 3160), (sym_external_var_decls, 3160),
     (sym_global_var_decls, 2947), (sym_loc_partly_var_decl, 3160), (sym__fb_variables, 2343),
     (sym_fb_input_decls, 3160), (sym_fb_output_decls, 3160), (sym_no_retain_var_decls, 3160),
     (sym_fb_body, 8594), (sym_method_decl, 2549), (sym_prog_access_decls, 3043), (sym_SFC, 7970),
     (sym_SFC_network, 7612), (sym_initial_step, 7439), (sym_config_init, 3047),
     (sym_variable_access, 7530), (sym_func_call, 2961), (sym_stmt_list, 7970), (sym__stmt, 2024),
     (sym_assign, 3150), (sym_if_stmt, 3150), (sym_case_stmt, 3150), (sym_for_stmt, 3150),
     (sym_while_stmt, 3150), (sym_repeat_stmt, 3150), (sym_raise_stmt, 3150), (sym_try_stmt, 3150),
     (sym_ERR_clause_outside_try, 3150), (sym_begin_path_expression, 2943), (sym_invocation, 2934),
     (sym_any_invocation, 2935), (sym_this_invocation, 2641), (sym_super_invocation, 2641),
     (sym_super_body_invocation, 2935), (sym_path_expression, 2627), (sym_field_expression, 2373),
     (sym_index_expression, 2373), (sym_ladder_diagram, 7970), (sym_fb_diagram, 7970),
     (aux_sym_ERR_fb_variables_after_method_repeat1, 2343), (aux_sym_func_decl_repeat1, 7194),
     (aux_sym_fb_decl_repeat3, 2549), (aux_sym_SFC_repeat1, 7612),
     (aux_sym_stmt_list_repeat1, 2024), (aux_sym_ladder_diagram_repeat1, 8009),
     (aux_sym_fb_diagram_repeat1, 8013), (sym_identifier, 298),
     (aux_sym_ERR_unexpected_this_in_path_token1, 304),
     (aux_sym_ERR_unexpected_super_in_path_token1, 306), (sym_line_comment, 3),
     (anon_sym_LBRACE, 308), (aux_sym_test_pragma_token1, 9), (aux_sym_once_pragma_token1, 11),
     (aux_sym_must_call_pragma_token1, 13), (aux_sym_export_pragma_token1, 15),
     (anon_sym_SEMI, 310), (anon_sym_PERCENT, 312), (aux_sym_input_decls_token1, 314),
     (aux_sym_output_decls_token1, 316), (aux_sym_in_out_decls_token1, 318),
     (aux_sym_var_decls_token1, 320), (aux_sym_temp_var_decls_token1, 322),
     (aux_sym_external_var_decls_token1, 324), (aux_sym_global_var_decls_token1, 326),
     (aux_sym_fb_decl_token4, 1954), (aux_sym_method_decl_token1, 330),
     (aux_sym_prog_access_decls_token1, 332), (aux_sym_initial_step_token1, 334),
     (aux_sym_config_init_token1, 336), (aux_sym__stmt_token1, 340), (aux_sym__stmt_token2, 340),
     (aux_sym__stmt_token3, 340), (aux_sym_if_stmt_token1, 342), (aux_sym_case_stmt_token1, 344),
     (aux_sym_for_stmt_token1, 346), (aux_sym_while_stmt_token1, 348),
     (aux_sym_repeat_stmt_token1, 350), (aux_sym_raise_stmt_token1, 352),
     (aux_sym_try_stmt_token1, 354), (aux_sym_try_stmt_token2, 356),
     (aux_sym_catch_clause_token1, 356), (aux_sym_finally_clause_token1, 356), (sym_ld_rung, 358),
     (sym_fbd_network, 360), (sym_c_style_comment, 3), (sym_pascal_style_comment, 3),
     (sym_pragma, 3)]"

lemma ts_parse_row_812_scan: "row_scan tokens_63_2 0 ts_parse_row_812 = Some (Suc (Suc (Suc (Suc 0))))"
  unfolding ts_parse_row_812_def by simp

text \<open>Lines 147078 to 147190.\<close>

definition ts_parse_row_813 :: parse_row where
  "ts_parse_row_813 =
    [(sym_ERR_assign_func_call, 7530), (sym_ERR_unexpected_this_in_path, 2372),
     (sym_ERR_unexpected_super_in_path, 2372), (sym_ERR_fb_variables_after_method, 1813),
     (sym_ERR_var_access_not_allowed, 3160), (sym_ERR_var_config_not_allowed, 3160),
     (sym_ERR_var_global_not_allowed, 3160), (sym_ERR_method_decl_in_body, 3150),
     (sym_extern_pragma, 7490), (sym_wasm_pragma, 3150), (sym_warn_pragma, 7490),
     (sym_allow_pragma, 3140), (sym_test_pragma, 7490), (sym_once_pragma, 7490),
     (sym_must_call_pragma, 7490), (sym_export_pragma, 7490), (sym_pou_pragma, 7194),
     (sym_direct_variable, 7675), (sym_deref_expression, 2373), (sym_variable, 7599),
     (sym_var_access, 2373), (sym_in_out_decls, 3160), (sym_var_decls, 3160),
     (sym_retain_var_decls, 3160), (sym_temp_var_decls, 3160), (sym_external_var_decls, 3160),
     (sym_global_var_decls, 2947), (sym_loc_partly_var_decl, 3160), (sym__fb_variables, 2347),
     (sym_fb_input_decls, 3160), (sym_fb_output_decls, 3160), (sym_no_retain_var_decls, 3160),
     (sym_fb_body, 8600), (sym_method_decl, 839), (sym_prog_access_decls, 3043), (sym_SFC, 7970),
     (sym_SFC_network, 7612), (sym_initial_step, 7439), (sym_config_init, 3047),
     (sym_variable_access, 7530), (sym_func_call, 2961), (sym_stmt_list, 7970), (sym__stmt, 2024),
     (sym_assign, 3150), (sym_if_stmt, 3150), (sym_case_stmt, 3150), (sym_for_stmt, 3150),
     (sym_while_stmt, 3150), (sym_repeat_stmt, 3150), (sym_raise_stmt, 3150), (sym_try_stmt, 3150),
     (sym_ERR_clause_outside_try, 3150), (sym_begin_path_expression, 2943), (sym_invocation, 2934),
     (sym_any_invocation, 2935), (sym_this_invocation, 2641), (sym_super_invocation, 2641),
     (sym_super_body_invocation, 2935), (sym_path_expression, 2627), (sym_field_expression, 2373),
     (sym_index_expression, 2373), (sym_ladder_diagram, 7970), (sym_fb_diagram, 7970),
     (aux_sym_ERR_fb_variables_after_method_repeat1, 2347), (aux_sym_func_decl_repeat1, 7194),
     (aux_sym_fb_decl_repeat3, 839), (aux_sym_SFC_repeat1, 7612), (aux_sym_stmt_list_repeat1, 2024),
     (aux_sym_ladder_diagram_repeat1, 8009), (aux_sym_fb_diagram_repeat1, 8013),
     (sym_identifier, 298), (aux_sym_ERR_unexpected_this_in_path_token1, 304),
     (aux_sym_ERR_unexpected_super_in_path_token1, 306), (sym_line_comment, 3),
     (anon_sym_LBRACE, 308), (aux_sym_test_pragma_token1, 9), (aux_sym_once_pragma_token1, 11),
     (aux_sym_must_call_pragma_token1, 13), (aux_sym_export_pragma_token1, 15),
     (anon_sym_SEMI, 310), (anon_sym_PERCENT, 312), (aux_sym_input_decls_token1, 314),
     (aux_sym_output_decls_token1, 316), (aux_sym_in_out_decls_token1, 318),
     (aux_sym_var_decls_token1, 320), (aux_sym_temp_var_decls_token1, 322),
     (aux_sym_external_var_decls_token1, 324), (aux_sym_global_var_decls_token1, 326),
     (aux_sym_fb_decl_token4, 1956), (aux_sym_method_decl_token1, 330),
     (aux_sym_prog_access_decls_token1, 332), (aux_sym_initial_step_token1, 334),
     (aux_sym_config_init_token1, 336), (aux_sym__stmt_token1, 340), (aux_sym__stmt_token2, 340),
     (aux_sym__stmt_token3, 340), (aux_sym_if_stmt_token1, 342), (aux_sym_case_stmt_token1, 344),
     (aux_sym_for_stmt_token1, 346), (aux_sym_while_stmt_token1, 348),
     (aux_sym_repeat_stmt_token1, 350), (aux_sym_raise_stmt_token1, 352),
     (aux_sym_try_stmt_token1, 354), (aux_sym_try_stmt_token2, 356),
     (aux_sym_catch_clause_token1, 356), (aux_sym_finally_clause_token1, 356), (sym_ld_rung, 358),
     (sym_fbd_network, 360), (sym_c_style_comment, 3), (sym_pascal_style_comment, 3),
     (sym_pragma, 3)]"

lemma ts_parse_row_813_scan: "row_scan tokens_63_2 0 ts_parse_row_813 = Some (Suc (Suc (Suc (Suc 0))))"
  unfolding ts_parse_row_813_def by simp

text \<open>Lines 147191 to 147303.\<close>

definition ts_parse_row_814 :: parse_row where
  "ts_parse_row_814 =
    [(sym_ERR_assign_func_call, 7530), (sym_ERR_unexpected_this_in_path, 2372),
     (sym_ERR_unexpected_super_in_path, 2372), (sym_ERR_fb_variables_after_method, 1814),
     (sym_ERR_var_access_not_allowed, 3160), (sym_ERR_var_config_not_allowed, 3160),
     (sym_ERR_var_global_not_allowed, 3160), (sym_ERR_method_decl_in_body, 3150),
     (sym_extern_pragma, 7490), (sym_wasm_pragma, 3150), (sym_warn_pragma, 7490),
     (sym_allow_pragma, 3140), (sym_test_pragma, 7490), (sym_once_pragma, 7490),
     (sym_must_call_pragma, 7490), (sym_export_pragma, 7490), (sym_pou_pragma, 7194),
     (sym_direct_variable, 7675), (sym_deref_expression, 2373), (sym_variable, 7599),
     (sym_var_access, 2373), (sym_in_out_decls, 3160), (sym_var_decls, 3160),
     (sym_retain_var_decls, 3160), (sym_temp_var_decls, 3160), (sym_external_var_decls, 3160),
     (sym_global_var_decls, 2947), (sym_loc_partly_var_decl, 3160), (sym__fb_variables, 2343),
     (sym_fb_input_decls, 3160), (sym_fb_output_decls, 3160), (sym_no_retain_var_decls, 3160),
     (sym_fb_body, 8604), (sym_method_decl, 2549), (sym_prog_access_decls, 3043), (sym_SFC, 7970),
     (sym_SFC_network, 7612), (sym_initial_step, 7439), (sym_config_init, 3047),
     (sym_variable_access, 7530), (sym_func_call, 2961), (sym_stmt_list, 7970), (sym__stmt, 2024),
     (sym_assign, 3150), (sym_if_stmt, 3150), (sym_case_stmt, 3150), (sym_for_stmt, 3150),
     (sym_while_stmt, 3150), (sym_repeat_stmt, 3150), (sym_raise_stmt, 3150), (sym_try_stmt, 3150),
     (sym_ERR_clause_outside_try, 3150), (sym_begin_path_expression, 2943), (sym_invocation, 2934),
     (sym_any_invocation, 2935), (sym_this_invocation, 2641), (sym_super_invocation, 2641),
     (sym_super_body_invocation, 2935), (sym_path_expression, 2627), (sym_field_expression, 2373),
     (sym_index_expression, 2373), (sym_ladder_diagram, 7970), (sym_fb_diagram, 7970),
     (aux_sym_ERR_fb_variables_after_method_repeat1, 2343), (aux_sym_func_decl_repeat1, 7194),
     (aux_sym_fb_decl_repeat3, 2549), (aux_sym_SFC_repeat1, 7612),
     (aux_sym_stmt_list_repeat1, 2024), (aux_sym_ladder_diagram_repeat1, 8009),
     (aux_sym_fb_diagram_repeat1, 8013), (sym_identifier, 298),
     (aux_sym_ERR_unexpected_this_in_path_token1, 304),
     (aux_sym_ERR_unexpected_super_in_path_token1, 306), (sym_line_comment, 3),
     (anon_sym_LBRACE, 308), (aux_sym_test_pragma_token1, 9), (aux_sym_once_pragma_token1, 11),
     (aux_sym_must_call_pragma_token1, 13), (aux_sym_export_pragma_token1, 15),
     (anon_sym_SEMI, 310), (anon_sym_PERCENT, 312), (aux_sym_input_decls_token1, 314),
     (aux_sym_output_decls_token1, 316), (aux_sym_in_out_decls_token1, 318),
     (aux_sym_var_decls_token1, 320), (aux_sym_temp_var_decls_token1, 322),
     (aux_sym_external_var_decls_token1, 324), (aux_sym_global_var_decls_token1, 326),
     (aux_sym_fb_decl_token4, 1958), (aux_sym_method_decl_token1, 330),
     (aux_sym_prog_access_decls_token1, 332), (aux_sym_initial_step_token1, 334),
     (aux_sym_config_init_token1, 336), (aux_sym__stmt_token1, 340), (aux_sym__stmt_token2, 340),
     (aux_sym__stmt_token3, 340), (aux_sym_if_stmt_token1, 342), (aux_sym_case_stmt_token1, 344),
     (aux_sym_for_stmt_token1, 346), (aux_sym_while_stmt_token1, 348),
     (aux_sym_repeat_stmt_token1, 350), (aux_sym_raise_stmt_token1, 352),
     (aux_sym_try_stmt_token1, 354), (aux_sym_try_stmt_token2, 356),
     (aux_sym_catch_clause_token1, 356), (aux_sym_finally_clause_token1, 356), (sym_ld_rung, 358),
     (sym_fbd_network, 360), (sym_c_style_comment, 3), (sym_pascal_style_comment, 3),
     (sym_pragma, 3)]"

lemma ts_parse_row_814_scan: "row_scan tokens_63_2 0 ts_parse_row_814 = Some (Suc (Suc (Suc (Suc 0))))"
  unfolding ts_parse_row_814_def by simp

text \<open>Lines 147304 to 147416.\<close>

definition ts_parse_row_815 :: parse_row where
  "ts_parse_row_815 =
    [(sym_ERR_assign_func_call, 7530), (sym_ERR_unexpected_this_in_path, 2372),
     (sym_ERR_unexpected_super_in_path, 2372), (sym_ERR_fb_variables_after_method, 1815),
     (sym_ERR_var_access_not_allowed, 3160), (sym_ERR_var_config_not_allowed, 3160),
     (sym_ERR_var_global_not_allowed, 3160), (sym_ERR_method_decl_in_body, 3150),
     (sym_extern_pragma, 7490), (sym_wasm_pragma, 3150), (sym_warn_pragma, 7490),
     (sym_allow_pragma, 3140), (sym_test_pragma, 7490), (sym_once_pragma, 7490),
     (sym_must_call_pragma, 7490), (sym_export_pragma, 7490), (sym_pou_pragma, 7194),
     (sym_direct_variable, 7675), (sym_deref_expression, 2373), (sym_variable, 7599),
     (sym_var_access, 2373), (sym_in_out_decls, 3160), (sym_var_decls, 3160),
     (sym_retain_var_decls, 3160), (sym_temp_var_decls, 3160), (sym_external_var_decls, 3160),
     (sym_global_var_decls, 2947), (sym_loc_partly_var_decl, 3160), (sym__fb_variables, 2343),
     (sym_fb_input_decls, 3160), (sym_fb_output_decls, 3160), (sym_no_retain_var_decls, 3160),
     (sym_fb_body, 8654), (sym_method_decl, 2549), (sym_prog_access_decls, 3043), (sym_SFC, 7970),
     (sym_SFC_network, 7612), (sym_initial_step, 7439), (sym_config_init, 3047),
     (sym_variable_access, 7530), (sym_func_call, 2961), (sym_stmt_list, 7970), (sym__stmt, 2024),
     (sym_assign, 3150), (sym_if_stmt, 3150), (sym_case_stmt, 3150), (sym_for_stmt, 3150),
     (sym_while_stmt, 3150), (sym_repeat_stmt, 3150), (sym_raise_stmt, 3150), (sym_try_stmt, 3150),
     (sym_ERR_clause_outside_try, 3150), (sym_begin_path_expression, 2943), (sym_invocation, 2934),
     (sym_any_invocation, 2935), (sym_this_invocation, 2641), (sym_super_invocation, 2641),
     (sym_super_body_invocation, 2935), (sym_path_expression, 2627), (sym_field_expression, 2373),
     (sym_index_expression, 2373), (sym_ladder_diagram, 7970), (sym_fb_diagram, 7970),
     (aux_sym_ERR_fb_variables_after_method_repeat1, 2343), (aux_sym_func_decl_repeat1, 7194),
     (aux_sym_fb_decl_repeat3, 2549), (aux_sym_SFC_repeat1, 7612),
     (aux_sym_stmt_list_repeat1, 2024), (aux_sym_ladder_diagram_repeat1, 8009),
     (aux_sym_fb_diagram_repeat1, 8013), (sym_identifier, 298),
     (aux_sym_ERR_unexpected_this_in_path_token1, 304),
     (aux_sym_ERR_unexpected_super_in_path_token1, 306), (sym_line_comment, 3),
     (anon_sym_LBRACE, 308), (aux_sym_test_pragma_token1, 9), (aux_sym_once_pragma_token1, 11),
     (aux_sym_must_call_pragma_token1, 13), (aux_sym_export_pragma_token1, 15),
     (anon_sym_SEMI, 310), (anon_sym_PERCENT, 312), (aux_sym_input_decls_token1, 314),
     (aux_sym_output_decls_token1, 316), (aux_sym_in_out_decls_token1, 318),
     (aux_sym_var_decls_token1, 320), (aux_sym_temp_var_decls_token1, 322),
     (aux_sym_external_var_decls_token1, 324), (aux_sym_global_var_decls_token1, 326),
     (aux_sym_fb_decl_token4, 1960), (aux_sym_method_decl_token1, 330),
     (aux_sym_prog_access_decls_token1, 332), (aux_sym_initial_step_token1, 334),
     (aux_sym_config_init_token1, 336), (aux_sym__stmt_token1, 340), (aux_sym__stmt_token2, 340),
     (aux_sym__stmt_token3, 340), (aux_sym_if_stmt_token1, 342), (aux_sym_case_stmt_token1, 344),
     (aux_sym_for_stmt_token1, 346), (aux_sym_while_stmt_token1, 348),
     (aux_sym_repeat_stmt_token1, 350), (aux_sym_raise_stmt_token1, 352),
     (aux_sym_try_stmt_token1, 354), (aux_sym_try_stmt_token2, 356),
     (aux_sym_catch_clause_token1, 356), (aux_sym_finally_clause_token1, 356), (sym_ld_rung, 358),
     (sym_fbd_network, 360), (sym_c_style_comment, 3), (sym_pascal_style_comment, 3),
     (sym_pragma, 3)]"

lemma ts_parse_row_815_scan: "row_scan tokens_63_2 0 ts_parse_row_815 = Some (Suc (Suc (Suc (Suc 0))))"
  unfolding ts_parse_row_815_def by simp

text \<open>Lines 147417 to 147529.\<close>

definition ts_parse_row_816 :: parse_row where
  "ts_parse_row_816 =
    [(sym_ERR_assign_func_call, 7530), (sym_ERR_unexpected_this_in_path, 2372),
     (sym_ERR_unexpected_super_in_path, 2372), (sym_ERR_fb_variables_after_method, 1816),
     (sym_ERR_var_access_not_allowed, 3160), (sym_ERR_var_config_not_allowed, 3160),
     (sym_ERR_var_global_not_allowed, 3160), (sym_ERR_method_decl_in_body, 3150),
     (sym_extern_pragma, 7490), (sym_wasm_pragma, 3150), (sym_warn_pragma, 7490),
     (sym_allow_pragma, 3140), (sym_test_pragma, 7490), (sym_once_pragma, 7490),
     (sym_must_call_pragma, 7490), (sym_export_pragma, 7490), (sym_pou_pragma, 7194),
     (sym_direct_variable, 7675), (sym_deref_expression, 2373), (sym_variable, 7599),
     (sym_var_access, 2373), (sym_in_out_decls, 3160), (sym_var_decls, 3160),
     (sym_retain_var_decls, 3160), (sym_temp_var_decls, 3160), (sym_external_var_decls, 3160),
     (sym_global_var_decls, 2947), (sym_loc_partly_var_decl, 3160), (sym__fb_variables, 2343),
     (sym_fb_input_decls, 3160), (sym_fb_output_decls, 3160), (sym_no_retain_var_decls, 3160),
     (sym_fb_body, 8728), (sym_method_decl, 2549), (sym_prog_access_decls, 3043), (sym_SFC, 7970),
     (sym_SFC_network, 7612), (sym_initial_step, 7439), (sym_config_init, 3047),
     (sym_variable_access, 7530), (sym_func_call, 2961), (sym_stmt_list, 7970), (sym__stmt, 2024),
     (sym_assign, 3150), (sym_if_stmt, 3150), (sym_case_stmt, 3150), (sym_for_stmt, 3150),
     (sym_while_stmt, 3150), (sym_repeat_stmt, 3150), (sym_raise_stmt, 3150), (sym_try_stmt, 3150),
     (sym_ERR_clause_outside_try, 3150), (sym_begin_path_expression, 2943), (sym_invocation, 2934),
     (sym_any_invocation, 2935), (sym_this_invocation, 2641), (sym_super_invocation, 2641),
     (sym_super_body_invocation, 2935), (sym_path_expression, 2627), (sym_field_expression, 2373),
     (sym_index_expression, 2373), (sym_ladder_diagram, 7970), (sym_fb_diagram, 7970),
     (aux_sym_ERR_fb_variables_after_method_repeat1, 2343), (aux_sym_func_decl_repeat1, 7194),
     (aux_sym_fb_decl_repeat3, 2549), (aux_sym_SFC_repeat1, 7612),
     (aux_sym_stmt_list_repeat1, 2024), (aux_sym_ladder_diagram_repeat1, 8009),
     (aux_sym_fb_diagram_repeat1, 8013), (sym_identifier, 298),
     (aux_sym_ERR_unexpected_this_in_path_token1, 304),
     (aux_sym_ERR_unexpected_super_in_path_token1, 306), (sym_line_comment, 3),
     (anon_sym_LBRACE, 308), (aux_sym_test_pragma_token1, 9), (aux_sym_once_pragma_token1, 11),
     (aux_sym_must_call_pragma_token1, 13), (aux_sym_export_pragma_token1, 15),
     (anon_sym_SEMI, 310), (anon_sym_PERCENT, 312), (aux_sym_input_decls_token1, 314),
     (aux_sym_output_decls_token1, 316), (aux_sym_in_out_decls_token1, 318),
     (aux_sym_var_decls_token1, 320), (aux_sym_temp_var_decls_token1, 322),
     (aux_sym_external_var_decls_token1, 324), (aux_sym_global_var_decls_token1, 326),
     (aux_sym_fb_decl_token4, 1962), (aux_sym_method_decl_token1, 330),
     (aux_sym_prog_access_decls_token1, 332), (aux_sym_initial_step_token1, 334),
     (aux_sym_config_init_token1, 336), (aux_sym__stmt_token1, 340), (aux_sym__stmt_token2, 340),
     (aux_sym__stmt_token3, 340), (aux_sym_if_stmt_token1, 342), (aux_sym_case_stmt_token1, 344),
     (aux_sym_for_stmt_token1, 346), (aux_sym_while_stmt_token1, 348),
     (aux_sym_repeat_stmt_token1, 350), (aux_sym_raise_stmt_token1, 352),
     (aux_sym_try_stmt_token1, 354), (aux_sym_try_stmt_token2, 356),
     (aux_sym_catch_clause_token1, 356), (aux_sym_finally_clause_token1, 356), (sym_ld_rung, 358),
     (sym_fbd_network, 360), (sym_c_style_comment, 3), (sym_pascal_style_comment, 3),
     (sym_pragma, 3)]"

lemma ts_parse_row_816_scan: "row_scan tokens_63_2 0 ts_parse_row_816 = Some (Suc (Suc (Suc (Suc 0))))"
  unfolding ts_parse_row_816_def by simp

text \<open>Lines 147530 to 147642.\<close>

definition ts_parse_row_817 :: parse_row where
  "ts_parse_row_817 =
    [(sym_ERR_assign_func_call, 7530), (sym_ERR_unexpected_this_in_path, 2372),
     (sym_ERR_unexpected_super_in_path, 2372), (sym_ERR_fb_variables_after_method, 1817),
     (sym_ERR_var_access_not_allowed, 3160), (sym_ERR_var_config_not_allowed, 3160),
     (sym_ERR_var_global_not_allowed, 3160), (sym_ERR_method_decl_in_body, 3150),
     (sym_extern_pragma, 7490), (sym_wasm_pragma, 3150), (sym_warn_pragma, 7490),
     (sym_allow_pragma, 3140), (sym_test_pragma, 7490), (sym_once_pragma, 7490),
     (sym_must_call_pragma, 7490), (sym_export_pragma, 7490), (sym_pou_pragma, 7194),
     (sym_direct_variable, 7675), (sym_deref_expression, 2373), (sym_variable, 7599),
     (sym_var_access, 2373), (sym_in_out_decls, 3160), (sym_var_decls, 3160),
     (sym_retain_var_decls, 3160), (sym_temp_var_decls, 3160), (sym_external_var_decls, 3160),
     (sym_global_var_decls, 2947), (sym_loc_partly_var_decl, 3160), (sym__fb_variables, 2343),
     (sym_fb_input_decls, 3160), (sym_fb_output_decls, 3160), (sym_no_retain_var_decls, 3160),
     (sym_fb_body, 8743), (sym_method_decl, 2549), (sym_prog_access_decls, 3043), (sym_SFC, 7970),
     (sym_SFC_network, 7612), (sym_initial_step, 7439), (sym_config_init, 3047),
     (sym_variable_access, 7530), (sym_func_call, 2961), (sym_stmt_list, 7970), (sym__stmt, 2024),
     (sym_assign, 3150), (sym_if_stmt, 3150), (sym_case_stmt, 3150), (sym_for_stmt, 3150),
     (sym_while_stmt, 3150), (sym_repeat_stmt, 3150), (sym_raise_stmt, 3150), (sym_try_stmt, 3150),
     (sym_ERR_clause_outside_try, 3150), (sym_begin_path_expression, 2943), (sym_invocation, 2934),
     (sym_any_invocation, 2935), (sym_this_invocation, 2641), (sym_super_invocation, 2641),
     (sym_super_body_invocation, 2935), (sym_path_expression, 2627), (sym_field_expression, 2373),
     (sym_index_expression, 2373), (sym_ladder_diagram, 7970), (sym_fb_diagram, 7970),
     (aux_sym_ERR_fb_variables_after_method_repeat1, 2343), (aux_sym_func_decl_repeat1, 7194),
     (aux_sym_fb_decl_repeat3, 2549), (aux_sym_SFC_repeat1, 7612),
     (aux_sym_stmt_list_repeat1, 2024), (aux_sym_ladder_diagram_repeat1, 8009),
     (aux_sym_fb_diagram_repeat1, 8013), (sym_identifier, 298),
     (aux_sym_ERR_unexpected_this_in_path_token1, 304),
     (aux_sym_ERR_unexpected_super_in_path_token1, 306), (sym_line_comment, 3),
     (anon_sym_LBRACE, 308), (aux_sym_test_pragma_token1, 9), (aux_sym_once_pragma_token1, 11),
     (aux_sym_must_call_pragma_token1, 13), (aux_sym_export_pragma_token1, 15),
     (anon_sym_SEMI, 310), (anon_sym_PERCENT, 312), (aux_sym_input_decls_token1, 314),
     (aux_sym_output_decls_token1, 316), (aux_sym_in_out_decls_token1, 318),
     (aux_sym_var_decls_token1, 320), (aux_sym_temp_var_decls_token1, 322),
     (aux_sym_external_var_decls_token1, 324), (aux_sym_global_var_decls_token1, 326),
     (aux_sym_fb_decl_token4, 1964), (aux_sym_method_decl_token1, 330),
     (aux_sym_prog_access_decls_token1, 332), (aux_sym_initial_step_token1, 334),
     (aux_sym_config_init_token1, 336), (aux_sym__stmt_token1, 340), (aux_sym__stmt_token2, 340),
     (aux_sym__stmt_token3, 340), (aux_sym_if_stmt_token1, 342), (aux_sym_case_stmt_token1, 344),
     (aux_sym_for_stmt_token1, 346), (aux_sym_while_stmt_token1, 348),
     (aux_sym_repeat_stmt_token1, 350), (aux_sym_raise_stmt_token1, 352),
     (aux_sym_try_stmt_token1, 354), (aux_sym_try_stmt_token2, 356),
     (aux_sym_catch_clause_token1, 356), (aux_sym_finally_clause_token1, 356), (sym_ld_rung, 358),
     (sym_fbd_network, 360), (sym_c_style_comment, 3), (sym_pascal_style_comment, 3),
     (sym_pragma, 3)]"

lemma ts_parse_row_817_scan: "row_scan tokens_63_2 0 ts_parse_row_817 = Some (Suc (Suc (Suc (Suc 0))))"
  unfolding ts_parse_row_817_def by simp

text \<open>Lines 147643 to 147755.\<close>

definition ts_parse_row_818 :: parse_row where
  "ts_parse_row_818 =
    [(sym_ERR_assign_func_call, 7530), (sym_ERR_unexpected_this_in_path, 2372),
     (sym_ERR_unexpected_super_in_path, 2372), (sym_ERR_fb_variables_after_method, 1818),
     (sym_ERR_var_access_not_allowed, 3160), (sym_ERR_var_config_not_allowed, 3160),
     (sym_ERR_var_global_not_allowed, 3160), (sym_ERR_method_decl_in_body, 3150),
     (sym_extern_pragma, 7490), (sym_wasm_pragma, 3150), (sym_warn_pragma, 7490),
     (sym_allow_pragma, 3140), (sym_test_pragma, 7490), (sym_once_pragma, 7490),
     (sym_must_call_pragma, 7490), (sym_export_pragma, 7490), (sym_pou_pragma, 7194),
     (sym_direct_variable, 7675), (sym_deref_expression, 2373), (sym_variable, 7599),
     (sym_var_access, 2373), (sym_in_out_decls, 3160), (sym_var_decls, 3160),
     (sym_retain_var_decls, 3160), (sym_temp_var_decls, 3160), (sym_external_var_decls, 3160),
     (sym_global_var_decls, 2947), (sym_loc_partly_var_decl, 3160), (sym__fb_variables, 2343),
     (sym_fb_input_decls, 3160), (sym_fb_output_decls, 3160), (sym_no_retain_var_decls, 3160),
     (sym_fb_body, 8753), (sym_method_decl, 2549), (sym_prog_access_decls, 3043), (sym_SFC, 7970),
     (sym_SFC_network, 7612), (sym_initial_step, 7439), (sym_config_init, 3047),
     (sym_variable_access, 7530), (sym_func_call, 2961), (sym_stmt_list, 7970), (sym__stmt, 2024),
     (sym_assign, 3150), (sym_if_stmt, 3150), (sym_case_stmt, 3150), (sym_for_stmt, 3150),
     (sym_while_stmt, 3150), (sym_repeat_stmt, 3150), (sym_raise_stmt, 3150), (sym_try_stmt, 3150),
     (sym_ERR_clause_outside_try, 3150), (sym_begin_path_expression, 2943), (sym_invocation, 2934),
     (sym_any_invocation, 2935), (sym_this_invocation, 2641), (sym_super_invocation, 2641),
     (sym_super_body_invocation, 2935), (sym_path_expression, 2627), (sym_field_expression, 2373),
     (sym_index_expression, 2373), (sym_ladder_diagram, 7970), (sym_fb_diagram, 7970),
     (aux_sym_ERR_fb_variables_after_method_repeat1, 2343), (aux_sym_func_decl_repeat1, 7194),
     (aux_sym_fb_decl_repeat3, 2549), (aux_sym_SFC_repeat1, 7612),
     (aux_sym_stmt_list_repeat1, 2024), (aux_sym_ladder_diagram_repeat1, 8009),
     (aux_sym_fb_diagram_repeat1, 8013), (sym_identifier, 298),
     (aux_sym_ERR_unexpected_this_in_path_token1, 304),
     (aux_sym_ERR_unexpected_super_in_path_token1, 306), (sym_line_comment, 3),
     (anon_sym_LBRACE, 308), (aux_sym_test_pragma_token1, 9), (aux_sym_once_pragma_token1, 11),
     (aux_sym_must_call_pragma_token1, 13), (aux_sym_export_pragma_token1, 15),
     (anon_sym_SEMI, 310), (anon_sym_PERCENT, 312), (aux_sym_input_decls_token1, 314),
     (aux_sym_output_decls_token1, 316), (aux_sym_in_out_decls_token1, 318),
     (aux_sym_var_decls_token1, 320), (aux_sym_temp_var_decls_token1, 322),
     (aux_sym_external_var_decls_token1, 324), (aux_sym_global_var_decls_token1, 326),
     (aux_sym_fb_decl_token4, 1966), (aux_sym_method_decl_token1, 330),
     (aux_sym_prog_access_decls_token1, 332), (aux_sym_initial_step_token1, 334),
     (aux_sym_config_init_token1, 336), (aux_sym__stmt_token1, 340), (aux_sym__stmt_token2, 340),
     (aux_sym__stmt_token3, 340), (aux_sym_if_stmt_token1, 342), (aux_sym_case_stmt_token1, 344),
     (aux_sym_for_stmt_token1, 346), (aux_sym_while_stmt_token1, 348),
     (aux_sym_repeat_stmt_token1, 350), (aux_sym_raise_stmt_token1, 352),
     (aux_sym_try_stmt_token1, 354), (aux_sym_try_stmt_token2, 356),
     (aux_sym_catch_clause_token1, 356), (aux_sym_finally_clause_token1, 356), (sym_ld_rung, 358),
     (sym_fbd_network, 360), (sym_c_style_comment, 3), (sym_pascal_style_comment, 3),
     (sym_pragma, 3)]"

lemma ts_parse_row_818_scan: "row_scan tokens_63_2 0 ts_parse_row_818 = Some (Suc (Suc (Suc (Suc 0))))"
  unfolding ts_parse_row_818_def by simp

text \<open>Lines 147756 to 147868.\<close>

definition ts_parse_row_819 :: parse_row where
  "ts_parse_row_819 =
    [(sym_ERR_assign_func_call, 7530), (sym_ERR_unexpected_this_in_path, 2372),
     (sym_ERR_unexpected_super_in_path, 2372), (sym_ERR_fb_variables_after_method, 1819),
     (sym_ERR_var_access_not_allowed, 3160), (sym_ERR_var_config_not_allowed, 3160),
     (sym_ERR_var_global_not_allowed, 3160), (sym_ERR_method_decl_in_body, 3150),
     (sym_extern_pragma, 7490), (sym_wasm_pragma, 3150), (sym_warn_pragma, 7490),
     (sym_allow_pragma, 3140), (sym_test_pragma, 7490), (sym_once_pragma, 7490),
     (sym_must_call_pragma, 7490), (sym_export_pragma, 7490), (sym_pou_pragma, 7194),
     (sym_direct_variable, 7675), (sym_deref_expression, 2373), (sym_variable, 7599),
     (sym_var_access, 2373), (sym_in_out_decls, 3160), (sym_var_decls, 3160),
     (sym_retain_var_decls, 3160), (sym_temp_var_decls, 3160), (sym_external_var_decls, 3160),
     (sym_global_var_decls, 2947), (sym_loc_partly_var_decl, 3160), (sym__fb_variables, 2347),
     (sym_fb_input_decls, 3160), (sym_fb_output_decls, 3160), (sym_no_retain_var_decls, 3160),
     (sym_fb_body, 8759), (sym_method_decl, 840), (sym_prog_access_decls, 3043), (sym_SFC, 7970),
     (sym_SFC_network, 7612), (sym_initial_step, 7439), (sym_config_init, 3047),
     (sym_variable_access, 7530), (sym_func_call, 2961), (sym_stmt_list, 7970), (sym__stmt, 2024),
     (sym_assign, 3150), (sym_if_stmt, 3150), (sym_case_stmt, 3150), (sym_for_stmt, 3150),
     (sym_while_stmt, 3150), (sym_repeat_stmt, 3150), (sym_raise_stmt, 3150), (sym_try_stmt, 3150),
     (sym_ERR_clause_outside_try, 3150), (sym_begin_path_expression, 2943), (sym_invocation, 2934),
     (sym_any_invocation, 2935), (sym_this_invocation, 2641), (sym_super_invocation, 2641),
     (sym_super_body_invocation, 2935), (sym_path_expression, 2627), (sym_field_expression, 2373),
     (sym_index_expression, 2373), (sym_ladder_diagram, 7970), (sym_fb_diagram, 7970),
     (aux_sym_ERR_fb_variables_after_method_repeat1, 2347), (aux_sym_func_decl_repeat1, 7194),
     (aux_sym_fb_decl_repeat3, 840), (aux_sym_SFC_repeat1, 7612), (aux_sym_stmt_list_repeat1, 2024),
     (aux_sym_ladder_diagram_repeat1, 8009), (aux_sym_fb_diagram_repeat1, 8013),
     (sym_identifier, 298), (aux_sym_ERR_unexpected_this_in_path_token1, 304),
     (aux_sym_ERR_unexpected_super_in_path_token1, 306), (sym_line_comment, 3),
     (anon_sym_LBRACE, 308), (aux_sym_test_pragma_token1, 9), (aux_sym_once_pragma_token1, 11),
     (aux_sym_must_call_pragma_token1, 13), (aux_sym_export_pragma_token1, 15),
     (anon_sym_SEMI, 310), (anon_sym_PERCENT, 312), (aux_sym_input_decls_token1, 314),
     (aux_sym_output_decls_token1, 316), (aux_sym_in_out_decls_token1, 318),
     (aux_sym_var_decls_token1, 320), (aux_sym_temp_var_decls_token1, 322),
     (aux_sym_external_var_decls_token1, 324), (aux_sym_global_var_decls_token1, 326),
     (aux_sym_fb_decl_token4, 1968), (aux_sym_method_decl_token1, 330),
     (aux_sym_prog_access_decls_token1, 332), (aux_sym_initial_step_token1, 334),
     (aux_sym_config_init_token1, 336), (aux_sym__stmt_token1, 340), (aux_sym__stmt_token2, 340),
     (aux_sym__stmt_token3, 340), (aux_sym_if_stmt_token1, 342), (aux_sym_case_stmt_token1, 344),
     (aux_sym_for_stmt_token1, 346), (aux_sym_while_stmt_token1, 348),
     (aux_sym_repeat_stmt_token1, 350), (aux_sym_raise_stmt_token1, 352),
     (aux_sym_try_stmt_token1, 354), (aux_sym_try_stmt_token2, 356),
     (aux_sym_catch_clause_token1, 356), (aux_sym_finally_clause_token1, 356), (sym_ld_rung, 358),
     (sym_fbd_network, 360), (sym_c_style_comment, 3), (sym_pascal_style_comment, 3),
     (sym_pragma, 3)]"

lemma ts_parse_row_819_scan: "row_scan tokens_63_2 0 ts_parse_row_819 = Some (Suc (Suc (Suc (Suc 0))))"
  unfolding ts_parse_row_819_def by simp

text \<open>Lines 147869 to 147981.\<close>

definition ts_parse_row_820 :: parse_row where
  "ts_parse_row_820 =
    [(sym_ERR_assign_func_call, 7530), (sym_ERR_unexpected_this_in_path, 2372),
     (sym_ERR_unexpected_super_in_path, 2372), (sym_ERR_fb_variables_after_method, 1820),
     (sym_ERR_var_access_not_allowed, 3160), (sym_ERR_var_config_not_allowed, 3160),
     (sym_ERR_var_global_not_allowed, 3160), (sym_ERR_method_decl_in_body, 3150),
     (sym_extern_pragma, 7490), (sym_wasm_pragma, 3150), (sym_warn_pragma, 7490),
     (sym_allow_pragma, 3140), (sym_test_pragma, 7490), (sym_once_pragma, 7490),
     (sym_must_call_pragma, 7490), (sym_export_pragma, 7490), (sym_pou_pragma, 7194),
     (sym_direct_variable, 7675), (sym_deref_expression, 2373), (sym_variable, 7599),
     (sym_var_access, 2373), (sym_in_out_decls, 3160), (sym_var_decls, 3160),
     (sym_retain_var_decls, 3160), (sym_temp_var_decls, 3160), (sym_external_var_decls, 3160),
     (sym_global_var_decls, 2947), (sym_loc_partly_var_decl, 3160), (sym__fb_variables, 2343),
     (sym_fb_input_decls, 3160), (sym_fb_output_decls, 3160), (sym_no_retain_var_decls, 3160),
     (sym_fb_body, 8763), (sym_method_decl, 2549), (sym_prog_access_decls, 3043), (sym_SFC, 7970),
     (sym_SFC_network, 7612), (sym_initial_step, 7439), (sym_config_init, 3047),
     (sym_variable_access, 7530), (sym_func_call, 2961), (sym_stmt_list, 7970), (sym__stmt, 2024),
     (sym_assign, 3150), (sym_if_stmt, 3150), (sym_case_stmt, 3150), (sym_for_stmt, 3150),
     (sym_while_stmt, 3150), (sym_repeat_stmt, 3150), (sym_raise_stmt, 3150), (sym_try_stmt, 3150),
     (sym_ERR_clause_outside_try, 3150), (sym_begin_path_expression, 2943), (sym_invocation, 2934),
     (sym_any_invocation, 2935), (sym_this_invocation, 2641), (sym_super_invocation, 2641),
     (sym_super_body_invocation, 2935), (sym_path_expression, 2627), (sym_field_expression, 2373),
     (sym_index_expression, 2373), (sym_ladder_diagram, 7970), (sym_fb_diagram, 7970),
     (aux_sym_ERR_fb_variables_after_method_repeat1, 2343), (aux_sym_func_decl_repeat1, 7194),
     (aux_sym_fb_decl_repeat3, 2549), (aux_sym_SFC_repeat1, 7612),
     (aux_sym_stmt_list_repeat1, 2024), (aux_sym_ladder_diagram_repeat1, 8009),
     (aux_sym_fb_diagram_repeat1, 8013), (sym_identifier, 298),
     (aux_sym_ERR_unexpected_this_in_path_token1, 304),
     (aux_sym_ERR_unexpected_super_in_path_token1, 306), (sym_line_comment, 3),
     (anon_sym_LBRACE, 308), (aux_sym_test_pragma_token1, 9), (aux_sym_once_pragma_token1, 11),
     (aux_sym_must_call_pragma_token1, 13), (aux_sym_export_pragma_token1, 15),
     (anon_sym_SEMI, 310), (anon_sym_PERCENT, 312), (aux_sym_input_decls_token1, 314),
     (aux_sym_output_decls_token1, 316), (aux_sym_in_out_decls_token1, 318),
     (aux_sym_var_decls_token1, 320), (aux_sym_temp_var_decls_token1, 322),
     (aux_sym_external_var_decls_token1, 324), (aux_sym_global_var_decls_token1, 326),
     (aux_sym_fb_decl_token4, 1970), (aux_sym_method_decl_token1, 330),
     (aux_sym_prog_access_decls_token1, 332), (aux_sym_initial_step_token1, 334),
     (aux_sym_config_init_token1, 336), (aux_sym__stmt_token1, 340), (aux_sym__stmt_token2, 340),
     (aux_sym__stmt_token3, 340), (aux_sym_if_stmt_token1, 342), (aux_sym_case_stmt_token1, 344),
     (aux_sym_for_stmt_token1, 346), (aux_sym_while_stmt_token1, 348),
     (aux_sym_repeat_stmt_token1, 350), (aux_sym_raise_stmt_token1, 352),
     (aux_sym_try_stmt_token1, 354), (aux_sym_try_stmt_token2, 356),
     (aux_sym_catch_clause_token1, 356), (aux_sym_finally_clause_token1, 356), (sym_ld_rung, 358),
     (sym_fbd_network, 360), (sym_c_style_comment, 3), (sym_pascal_style_comment, 3),
     (sym_pragma, 3)]"

lemma ts_parse_row_820_scan: "row_scan tokens_63_2 0 ts_parse_row_820 = Some (Suc (Suc (Suc (Suc 0))))"
  unfolding ts_parse_row_820_def by simp

text \<open>Lines 147982 to 148094.\<close>

definition ts_parse_row_821 :: parse_row where
  "ts_parse_row_821 =
    [(sym_ERR_assign_func_call, 7530), (sym_ERR_unexpected_this_in_path, 2372),
     (sym_ERR_unexpected_super_in_path, 2372), (sym_ERR_fb_variables_after_method, 1821),
     (sym_ERR_var_access_not_allowed, 3160), (sym_ERR_var_config_not_allowed, 3160),
     (sym_ERR_var_global_not_allowed, 3160), (sym_ERR_method_decl_in_body, 3150),
     (sym_extern_pragma, 7490), (sym_wasm_pragma, 3150), (sym_warn_pragma, 7490),
     (sym_allow_pragma, 3140), (sym_test_pragma, 7490), (sym_once_pragma, 7490),
     (sym_must_call_pragma, 7490), (sym_export_pragma, 7490), (sym_pou_pragma, 7194),
     (sym_direct_variable, 7675), (sym_deref_expression, 2373), (sym_variable, 7599),
     (sym_var_access, 2373), (sym_in_out_decls, 3160), (sym_var_decls, 3160),
     (sym_retain_var_decls, 3160), (sym_temp_var_decls, 3160), (sym_external_var_decls, 3160),
     (sym_global_var_decls, 2947), (sym_loc_partly_var_decl, 3160), (sym__fb_variables, 2343),
     (sym_fb_input_decls, 3160), (sym_fb_output_decls, 3160), (sym_no_retain_var_decls, 3160),
     (sym_fb_body, 8792), (sym_method_decl, 2549), (sym_prog_access_decls, 3043), (sym_SFC, 7970),
     (sym_SFC_network, 7612), (sym_initial_step, 7439), (sym_config_init, 3047),
     (sym_variable_access, 7530), (sym_func_call, 2961), (sym_stmt_list, 7970), (sym__stmt, 2024),
     (sym_assign, 3150), (sym_if_stmt, 3150), (sym_case_stmt, 3150), (sym_for_stmt, 3150),
     (sym_while_stmt, 3150), (sym_repeat_stmt, 3150), (sym_raise_stmt, 3150), (sym_try_stmt, 3150),
     (sym_ERR_clause_outside_try, 3150), (sym_begin_path_expression, 2943), (sym_invocation, 2934),
     (sym_any_invocation, 2935), (sym_this_invocation, 2641), (sym_super_invocation, 2641),
     (sym_super_body_invocation, 2935), (sym_path_expression, 2627), (sym_field_expression, 2373),
     (sym_index_expression, 2373), (sym_ladder_diagram, 7970), (sym_fb_diagram, 7970),
     (aux_sym_ERR_fb_variables_after_method_repeat1, 2343), (aux_sym_func_decl_repeat1, 7194),
     (aux_sym_fb_decl_repeat3, 2549), (aux_sym_SFC_repeat1, 7612),
     (aux_sym_stmt_list_repeat1, 2024), (aux_sym_ladder_diagram_repeat1, 8009),
     (aux_sym_fb_diagram_repeat1, 8013), (sym_identifier, 298),
     (aux_sym_ERR_unexpected_this_in_path_token1, 304),
     (aux_sym_ERR_unexpected_super_in_path_token1, 306), (sym_line_comment, 3),
     (anon_sym_LBRACE, 308), (aux_sym_test_pragma_token1, 9), (aux_sym_once_pragma_token1, 11),
     (aux_sym_must_call_pragma_token1, 13), (aux_sym_export_pragma_token1, 15),
     (anon_sym_SEMI, 310), (anon_sym_PERCENT, 312), (aux_sym_input_decls_token1, 314),
     (aux_sym_output_decls_token1, 316), (aux_sym_in_out_decls_token1, 318),
     (aux_sym_var_decls_token1, 320), (aux_sym_temp_var_decls_token1, 322),
     (aux_sym_external_var_decls_token1, 324), (aux_sym_global_var_decls_token1, 326),
     (aux_sym_fb_decl_token4, 1972), (aux_sym_method_decl_token1, 330),
     (aux_sym_prog_access_decls_token1, 332), (aux_sym_initial_step_token1, 334),
     (aux_sym_config_init_token1, 336), (aux_sym__stmt_token1, 340), (aux_sym__stmt_token2, 340),
     (aux_sym__stmt_token3, 340), (aux_sym_if_stmt_token1, 342), (aux_sym_case_stmt_token1, 344),
     (aux_sym_for_stmt_token1, 346), (aux_sym_while_stmt_token1, 348),
     (aux_sym_repeat_stmt_token1, 350), (aux_sym_raise_stmt_token1, 352),
     (aux_sym_try_stmt_token1, 354), (aux_sym_try_stmt_token2, 356),
     (aux_sym_catch_clause_token1, 356), (aux_sym_finally_clause_token1, 356), (sym_ld_rung, 358),
     (sym_fbd_network, 360), (sym_c_style_comment, 3), (sym_pascal_style_comment, 3),
     (sym_pragma, 3)]"

lemma ts_parse_row_821_scan: "row_scan tokens_63_2 0 ts_parse_row_821 = Some (Suc (Suc (Suc (Suc 0))))"
  unfolding ts_parse_row_821_def by simp

text \<open>Lines 148095 to 148207.\<close>

definition ts_parse_row_822 :: parse_row where
  "ts_parse_row_822 =
    [(sym_ERR_assign_func_call, 7530), (sym_ERR_unexpected_this_in_path, 2372),
     (sym_ERR_unexpected_super_in_path, 2372), (sym_ERR_fb_variables_after_method, 1822),
     (sym_ERR_var_access_not_allowed, 3160), (sym_ERR_var_config_not_allowed, 3160),
     (sym_ERR_var_global_not_allowed, 3160), (sym_ERR_method_decl_in_body, 3150),
     (sym_extern_pragma, 7490), (sym_wasm_pragma, 3150), (sym_warn_pragma, 7490),
     (sym_allow_pragma, 3140), (sym_test_pragma, 7490), (sym_once_pragma, 7490),
     (sym_must_call_pragma, 7490), (sym_export_pragma, 7490), (sym_pou_pragma, 7194),
     (sym_direct_variable, 7675), (sym_deref_expression, 2373), (sym_variable, 7599),
     (sym_var_access, 2373), (sym_in_out_decls, 3160), (sym_var_decls, 3160),
     (sym_retain_var_decls, 3160), (sym_temp_var_decls, 3160), (sym_external_var_decls, 3160),
     (sym_global_var_decls, 2947), (sym_loc_partly_var_decl, 3160), (sym__fb_variables, 2343),
     (sym_fb_input_decls, 3160), (sym_fb_output_decls, 3160), (sym_no_retain_var_decls, 3160),
     (sym_fb_body, 8802), (sym_method_decl, 2549), (sym_prog_access_decls, 3043), (sym_SFC, 7970),
     (sym_SFC_network, 7612), (sym_initial_step, 7439), (sym_config_init, 3047),
     (sym_variable_access, 7530), (sym_func_call, 2961), (sym_stmt_list, 7970), (sym__stmt, 2024),
     (sym_assign, 3150), (sym_if_stmt, 3150), (sym_case_stmt, 3150), (sym_for_stmt, 3150),
     (sym_while_stmt, 3150), (sym_repeat_stmt, 3150), (sym_raise_stmt, 3150), (sym_try_stmt, 3150),
     (sym_ERR_clause_outside_try, 3150), (sym_begin_path_expression, 2943), (sym_invocation, 2934),
     (sym_any_invocation, 2935), (sym_this_invocation, 2641), (sym_super_invocation, 2641),
     (sym_super_body_invocation, 2935), (sym_path_expression, 2627), (sym_field_expression, 2373),
     (sym_index_expression, 2373), (sym_ladder_diagram, 7970), (sym_fb_diagram, 7970),
     (aux_sym_ERR_fb_variables_after_method_repeat1, 2343), (aux_sym_func_decl_repeat1, 7194),
     (aux_sym_fb_decl_repeat3, 2549), (aux_sym_SFC_repeat1, 7612),
     (aux_sym_stmt_list_repeat1, 2024), (aux_sym_ladder_diagram_repeat1, 8009),
     (aux_sym_fb_diagram_repeat1, 8013), (sym_identifier, 298),
     (aux_sym_ERR_unexpected_this_in_path_token1, 304),
     (aux_sym_ERR_unexpected_super_in_path_token1, 306), (sym_line_comment, 3),
     (anon_sym_LBRACE, 308), (aux_sym_test_pragma_token1, 9), (aux_sym_once_pragma_token1, 11),
     (aux_sym_must_call_pragma_token1, 13), (aux_sym_export_pragma_token1, 15),
     (anon_sym_SEMI, 310), (anon_sym_PERCENT, 312), (aux_sym_input_decls_token1, 314),
     (aux_sym_output_decls_token1, 316), (aux_sym_in_out_decls_token1, 318),
     (aux_sym_var_decls_token1, 320), (aux_sym_temp_var_decls_token1, 322),
     (aux_sym_external_var_decls_token1, 324), (aux_sym_global_var_decls_token1, 326),
     (aux_sym_fb_decl_token4, 1974), (aux_sym_method_decl_token1, 330),
     (aux_sym_prog_access_decls_token1, 332), (aux_sym_initial_step_token1, 334),
     (aux_sym_config_init_token1, 336), (aux_sym__stmt_token1, 340), (aux_sym__stmt_token2, 340),
     (aux_sym__stmt_token3, 340), (aux_sym_if_stmt_token1, 342), (aux_sym_case_stmt_token1, 344),
     (aux_sym_for_stmt_token1, 346), (aux_sym_while_stmt_token1, 348),
     (aux_sym_repeat_stmt_token1, 350), (aux_sym_raise_stmt_token1, 352),
     (aux_sym_try_stmt_token1, 354), (aux_sym_try_stmt_token2, 356),
     (aux_sym_catch_clause_token1, 356), (aux_sym_finally_clause_token1, 356), (sym_ld_rung, 358),
     (sym_fbd_network, 360), (sym_c_style_comment, 3), (sym_pascal_style_comment, 3),
     (sym_pragma, 3)]"

lemma ts_parse_row_822_scan: "row_scan tokens_63_2 0 ts_parse_row_822 = Some (Suc (Suc (Suc (Suc 0))))"
  unfolding ts_parse_row_822_def by simp

text \<open>Lines 148208 to 148320.\<close>

definition ts_parse_row_823 :: parse_row where
  "ts_parse_row_823 =
    [(sym_ERR_assign_func_call, 7530), (sym_ERR_unexpected_this_in_path, 2372),
     (sym_ERR_unexpected_super_in_path, 2372), (sym_ERR_fb_variables_after_method, 1823),
     (sym_ERR_var_access_not_allowed, 3160), (sym_ERR_var_config_not_allowed, 3160),
     (sym_ERR_var_global_not_allowed, 3160), (sym_ERR_method_decl_in_body, 3150),
     (sym_extern_pragma, 7490), (sym_wasm_pragma, 3150), (sym_warn_pragma, 7490),
     (sym_allow_pragma, 3140), (sym_test_pragma, 7490), (sym_once_pragma, 7490),
     (sym_must_call_pragma, 7490), (sym_export_pragma, 7490), (sym_pou_pragma, 7194),
     (sym_direct_variable, 7675), (sym_deref_expression, 2373), (sym_variable, 7599),
     (sym_var_access, 2373), (sym_in_out_decls, 3160), (sym_var_decls, 3160),
     (sym_retain_var_decls, 3160), (sym_temp_var_decls, 3160), (sym_external_var_decls, 3160),
     (sym_global_var_decls, 2947), (sym_loc_partly_var_decl, 3160), (sym__fb_variables, 2347),
     (sym_fb_input_decls, 3160), (sym_fb_output_decls, 3160), (sym_no_retain_var_decls, 3160),
     (sym_fb_body, 8808), (sym_method_decl, 841), (sym_prog_access_decls, 3043), (sym_SFC, 7970),
     (sym_SFC_network, 7612), (sym_initial_step, 7439), (sym_config_init, 3047),
     (sym_variable_access, 7530), (sym_func_call, 2961), (sym_stmt_list, 7970), (sym__stmt, 2024),
     (sym_assign, 3150), (sym_if_stmt, 3150), (sym_case_stmt, 3150), (sym_for_stmt, 3150),
     (sym_while_stmt, 3150), (sym_repeat_stmt, 3150), (sym_raise_stmt, 3150), (sym_try_stmt, 3150),
     (sym_ERR_clause_outside_try, 3150), (sym_begin_path_expression, 2943), (sym_invocation, 2934),
     (sym_any_invocation, 2935), (sym_this_invocation, 2641), (sym_super_invocation, 2641),
     (sym_super_body_invocation, 2935), (sym_path_expression, 2627), (sym_field_expression, 2373),
     (sym_index_expression, 2373), (sym_ladder_diagram, 7970), (sym_fb_diagram, 7970),
     (aux_sym_ERR_fb_variables_after_method_repeat1, 2347), (aux_sym_func_decl_repeat1, 7194),
     (aux_sym_fb_decl_repeat3, 841), (aux_sym_SFC_repeat1, 7612), (aux_sym_stmt_list_repeat1, 2024),
     (aux_sym_ladder_diagram_repeat1, 8009), (aux_sym_fb_diagram_repeat1, 8013),
     (sym_identifier, 298), (aux_sym_ERR_unexpected_this_in_path_token1, 304),
     (aux_sym_ERR_unexpected_super_in_path_token1, 306), (sym_line_comment, 3),
     (anon_sym_LBRACE, 308), (aux_sym_test_pragma_token1, 9), (aux_sym_once_pragma_token1, 11),
     (aux_sym_must_call_pragma_token1, 13), (aux_sym_export_pragma_token1, 15),
     (anon_sym_SEMI, 310), (anon_sym_PERCENT, 312), (aux_sym_input_decls_token1, 314),
     (aux_sym_output_decls_token1, 316), (aux_sym_in_out_decls_token1, 318),
     (aux_sym_var_decls_token1, 320), (aux_sym_temp_var_decls_token1, 322),
     (aux_sym_external_var_decls_token1, 324), (aux_sym_global_var_decls_token1, 326),
     (aux_sym_fb_decl_token4, 1976), (aux_sym_method_decl_token1, 330),
     (aux_sym_prog_access_decls_token1, 332), (aux_sym_initial_step_token1, 334),
     (aux_sym_config_init_token1, 336), (aux_sym__stmt_token1, 340), (aux_sym__stmt_token2, 340),
     (aux_sym__stmt_token3, 340), (aux_sym_if_stmt_token1, 342), (aux_sym_case_stmt_token1, 344),
     (aux_sym_for_stmt_token1, 346), (aux_sym_while_stmt_token1, 348),
     (aux_sym_repeat_stmt_token1, 350), (aux_sym_raise_stmt_token1, 352),
     (aux_sym_try_stmt_token1, 354), (aux_sym_try_stmt_token2, 356),
     (aux_sym_catch_clause_token1, 356), (aux_sym_finally_clause_token1, 356), (sym_ld_rung, 358),
     (sym_fbd_network, 360), (sym_c_style_comment, 3), (sym_pascal_style_comment, 3),
     (sym_pragma, 3)]"

lemma ts_parse_row_823_scan: "row_scan tokens_63_2 0 ts_parse_row_823 = Some (Suc (Suc (Suc (Suc 0))))"
  unfolding ts_parse_row_823_def by simp

text \<open>Lines 148321 to 148433.\<close>

definition ts_parse_row_824 :: parse_row where
  "ts_parse_row_824 =
    [(sym_ERR_assign_func_call, 7530), (sym_ERR_unexpected_this_in_path, 2372),
     (sym_ERR_unexpected_super_in_path, 2372), (sym_ERR_fb_variables_after_method, 1825),
     (sym_ERR_var_access_not_allowed, 3160), (sym_ERR_var_config_not_allowed, 3160),
     (sym_ERR_var_global_not_allowed, 3160), (sym_ERR_method_decl_in_body, 3150),
     (sym_extern_pragma, 7490), (sym_wasm_pragma, 3150), (sym_warn_pragma, 7490),
     (sym_allow_pragma, 3140), (sym_test_pragma, 7490), (sym_once_pragma, 7490),
     (sym_must_call_pragma, 7490), (sym_export_pragma, 7490), (sym_pou_pragma, 7194),
     (sym_direct_variable, 7675), (sym_deref_expression, 2373), (sym_variable, 7599),
     (sym_var_access, 2373), (sym_in_out_decls, 3160), (sym_var_decls, 3160),
     (sym_retain_var_decls, 3160), (sym_temp_var_decls, 3160), (sym_external_var_decls, 3160),
     (sym_global_var_decls, 2947), (sym_loc_partly_var_decl, 3160), (sym__fb_variables, 2343),
     (sym_fb_input_decls, 3160), (sym_fb_output_decls, 3160), (sym_no_retain_var_decls, 3160),
     (sym_fb_body, 8812), (sym_method_decl, 2549), (sym_prog_access_decls, 3043), (sym_SFC, 7970),
     (sym_SFC_network, 7612), (sym_initial_step, 7439), (sym_config_init, 3047),
     (sym_variable_access, 7530), (sym_func_call, 2961), (sym_stmt_list, 7970), (sym__stmt, 2024),
     (sym_assign, 3150), (sym_if_stmt, 3150), (sym_case_stmt, 3150), (sym_for_stmt, 3150),
     (sym_while_stmt, 3150), (sym_repeat_stmt, 3150), (sym_raise_stmt, 3150), (sym_try_stmt, 3150),
     (sym_ERR_clause_outside_try, 3150), (sym_begin_path_expression, 2943), (sym_invocation, 2934),
     (sym_any_invocation, 2935), (sym_this_invocation, 2641), (sym_super_invocation, 2641),
     (sym_super_body_invocation, 2935), (sym_path_expression, 2627), (sym_field_expression, 2373),
     (sym_index_expression, 2373), (sym_ladder_diagram, 7970), (sym_fb_diagram, 7970),
     (aux_sym_ERR_fb_variables_after_method_repeat1, 2343), (aux_sym_func_decl_repeat1, 7194),
     (aux_sym_fb_decl_repeat3, 2549), (aux_sym_SFC_repeat1, 7612),
     (aux_sym_stmt_list_repeat1, 2024), (aux_sym_ladder_diagram_repeat1, 8009),
     (aux_sym_fb_diagram_repeat1, 8013), (sym_identifier, 298),
     (aux_sym_ERR_unexpected_this_in_path_token1, 304),
     (aux_sym_ERR_unexpected_super_in_path_token1, 306), (sym_line_comment, 3),
     (anon_sym_LBRACE, 308), (aux_sym_test_pragma_token1, 9), (aux_sym_once_pragma_token1, 11),
     (aux_sym_must_call_pragma_token1, 13), (aux_sym_export_pragma_token1, 15),
     (anon_sym_SEMI, 310), (anon_sym_PERCENT, 312), (aux_sym_input_decls_token1, 314),
     (aux_sym_output_decls_token1, 316), (aux_sym_in_out_decls_token1, 318),
     (aux_sym_var_decls_token1, 320), (aux_sym_temp_var_decls_token1, 322),
     (aux_sym_external_var_decls_token1, 324), (aux_sym_global_var_decls_token1, 326),
     (aux_sym_fb_decl_token4, 1978), (aux_sym_method_decl_token1, 330),
     (aux_sym_prog_access_decls_token1, 332), (aux_sym_initial_step_token1, 334),
     (aux_sym_config_init_token1, 336), (aux_sym__stmt_token1, 340), (aux_sym__stmt_token2, 340),
     (aux_sym__stmt_token3, 340), (aux_sym_if_stmt_token1, 342), (aux_sym_case_stmt_token1, 344),
     (aux_sym_for_stmt_token1, 346), (aux_sym_while_stmt_token1, 348),
     (aux_sym_repeat_stmt_token1, 350), (aux_sym_raise_stmt_token1, 352),
     (aux_sym_try_stmt_token1, 354), (aux_sym_try_stmt_token2, 356),
     (aux_sym_catch_clause_token1, 356), (aux_sym_finally_clause_token1, 356), (sym_ld_rung, 358),
     (sym_fbd_network, 360), (sym_c_style_comment, 3), (sym_pascal_style_comment, 3),
     (sym_pragma, 3)]"

lemma ts_parse_row_824_scan: "row_scan tokens_63_2 0 ts_parse_row_824 = Some (Suc (Suc (Suc (Suc 0))))"
  unfolding ts_parse_row_824_def by simp

text \<open>Lines 148434 to 148546.\<close>

definition ts_parse_row_825 :: parse_row where
  "ts_parse_row_825 =
    [(sym_ERR_assign_func_call, 7530), (sym_ERR_unexpected_this_in_path, 2372),
     (sym_ERR_unexpected_super_in_path, 2372), (sym_ERR_fb_variables_after_method, 1477),
     (sym_ERR_var_access_not_allowed, 3160), (sym_ERR_var_config_not_allowed, 3160),
     (sym_ERR_var_global_not_allowed, 3160), (sym_ERR_method_decl_in_body, 3150),
     (sym_extern_pragma, 7490), (sym_wasm_pragma, 3150), (sym_warn_pragma, 7490),
     (sym_allow_pragma, 3140), (sym_test_pragma, 7490), (sym_once_pragma, 7490),
     (sym_must_call_pragma, 7490), (sym_export_pragma, 7490), (sym_pou_pragma, 7194),
     (sym_direct_variable, 7675), (sym_deref_expression, 2373), (sym_variable, 7599),
     (sym_var_access, 2373), (sym_in_out_decls, 3160), (sym_var_decls, 3160),
     (sym_retain_var_decls, 3160), (sym_temp_var_decls, 3160), (sym_external_var_decls, 3160),
     (sym_global_var_decls, 2947), (sym_loc_partly_var_decl, 3160), (sym__fb_variables, 2343),
     (sym_fb_input_decls, 3160), (sym_fb_output_decls, 3160), (sym_no_retain_var_decls, 3160),
     (sym_fb_body, 9999), (sym_method_decl, 2549), (sym_prog_access_decls, 3043), (sym_SFC, 7970),
     (sym_SFC_network, 7612), (sym_initial_step, 7439), (sym_config_init, 3047),
     (sym_variable_access, 7530), (sym_func_call, 2961), (sym_stmt_list, 7970), (sym__stmt, 2024),
     (sym_assign, 3150), (sym_if_stmt, 3150), (sym_case_stmt, 3150), (sym_for_stmt, 3150),
     (sym_while_stmt, 3150), (sym_repeat_stmt, 3150), (sym_raise_stmt, 3150), (sym_try_stmt, 3150),
     (sym_ERR_clause_outside_try, 3150), (sym_begin_path_expression, 2943), (sym_invocation, 2934),
     (sym_any_invocation, 2935), (sym_this_invocation, 2641), (sym_super_invocation, 2641),
     (sym_super_body_invocation, 2935), (sym_path_expression, 2627), (sym_field_expression, 2373),
     (sym_index_expression, 2373), (sym_ladder_diagram, 7970), (sym_fb_diagram, 7970),
     (aux_sym_ERR_fb_variables_after_method_repeat1, 2343), (aux_sym_func_decl_repeat1, 7194),
     (aux_sym_fb_decl_repeat3, 2549), (aux_sym_SFC_repeat1, 7612),
     (aux_sym_stmt_list_repeat1, 2024), (aux_sym_ladder_diagram_repeat1, 8009),
     (aux_sym_fb_diagram_repeat1, 8013), (sym_identifier, 298),
     (aux_sym_ERR_unexpected_this_in_path_token1, 304),
     (aux_sym_ERR_unexpected_super_in_path_token1, 306), (sym_line_comment, 3),
     (anon_sym_LBRACE, 308), (aux_sym_test_pragma_token1, 9), (aux_sym_once_pragma_token1, 11),
     (aux_sym_must_call_pragma_token1, 13), (aux_sym_export_pragma_token1, 15),
     (anon_sym_SEMI, 310), (anon_sym_PERCENT, 312), (aux_sym_input_decls_token1, 314),
     (aux_sym_output_decls_token1, 316), (aux_sym_in_out_decls_token1, 318),
     (aux_sym_var_decls_token1, 320), (aux_sym_temp_var_decls_token1, 322),
     (aux_sym_external_var_decls_token1, 324), (aux_sym_global_var_decls_token1, 326),
     (aux_sym_fb_decl_token4, 1980), (aux_sym_method_decl_token1, 330),
     (aux_sym_prog_access_decls_token1, 332), (aux_sym_initial_step_token1, 334),
     (aux_sym_config_init_token1, 336), (aux_sym__stmt_token1, 340), (aux_sym__stmt_token2, 340),
     (aux_sym__stmt_token3, 340), (aux_sym_if_stmt_token1, 342), (aux_sym_case_stmt_token1, 344),
     (aux_sym_for_stmt_token1, 346), (aux_sym_while_stmt_token1, 348),
     (aux_sym_repeat_stmt_token1, 350), (aux_sym_raise_stmt_token1, 352),
     (aux_sym_try_stmt_token1, 354), (aux_sym_try_stmt_token2, 356),
     (aux_sym_catch_clause_token1, 356), (aux_sym_finally_clause_token1, 356), (sym_ld_rung, 358),
     (sym_fbd_network, 360), (sym_c_style_comment, 3), (sym_pascal_style_comment, 3),
     (sym_pragma, 3)]"

lemma ts_parse_row_825_scan: "row_scan tokens_63_2 0 ts_parse_row_825 = Some (Suc (Suc (Suc (Suc 0))))"
  unfolding ts_parse_row_825_def by simp

text \<open>Lines 148547 to 148659.\<close>

definition ts_parse_row_826 :: parse_row where
  "ts_parse_row_826 =
    [(sym_ERR_assign_func_call, 7530), (sym_ERR_unexpected_this_in_path, 2372),
     (sym_ERR_unexpected_super_in_path, 2372), (sym_ERR_fb_variables_after_method, 1827),
     (sym_ERR_var_access_not_allowed, 3160), (sym_ERR_var_config_not_allowed, 3160),
     (sym_ERR_var_global_not_allowed, 3160), (sym_ERR_method_decl_in_body, 3150),
     (sym_extern_pragma, 7490), (sym_wasm_pragma, 3150), (sym_warn_pragma, 7490),
     (sym_allow_pragma, 3140), (sym_test_pragma, 7490), (sym_once_pragma, 7490),
     (sym_must_call_pragma, 7490), (sym_export_pragma, 7490), (sym_pou_pragma, 7194),
     (sym_direct_variable, 7675), (sym_deref_expression, 2373), (sym_variable, 7599),
     (sym_var_access, 2373), (sym_in_out_decls, 3160), (sym_var_decls, 3160),
     (sym_retain_var_decls, 3160), (sym_temp_var_decls, 3160), (sym_external_var_decls, 3160),
     (sym_global_var_decls, 2947), (sym_loc_partly_var_decl, 3160), (sym__fb_variables, 2347),
     (sym_fb_input_decls, 3160), (sym_fb_output_decls, 3160), (sym_no_retain_var_decls, 3160),
     (sym_fb_body, 8830), (sym_method_decl, 842), (sym_prog_access_decls, 3043), (sym_SFC, 7970),
     (sym_SFC_network, 7612), (sym_initial_step, 7439), (sym_config_init, 3047),
     (sym_variable_access, 7530), (sym_func_call, 2961), (sym_stmt_list, 7970), (sym__stmt, 2024),
     (sym_assign, 3150), (sym_if_stmt, 3150), (sym_case_stmt, 3150), (sym_for_stmt, 3150),
     (sym_while_stmt, 3150), (sym_repeat_stmt, 3150), (sym_raise_stmt, 3150), (sym_try_stmt, 3150),
     (sym_ERR_clause_outside_try, 3150), (sym_begin_path_expression, 2943), (sym_invocation, 2934),
     (sym_any_invocation, 2935), (sym_this_invocation, 2641), (sym_super_invocation, 2641),
     (sym_super_body_invocation, 2935), (sym_path_expression, 2627), (sym_field_expression, 2373),
     (sym_index_expression, 2373), (sym_ladder_diagram, 7970), (sym_fb_diagram, 7970),
     (aux_sym_ERR_fb_variables_after_method_repeat1, 2347), (aux_sym_func_decl_repeat1, 7194),
     (aux_sym_fb_decl_repeat3, 842), (aux_sym_SFC_repeat1, 7612), (aux_sym_stmt_list_repeat1, 2024),
     (aux_sym_ladder_diagram_repeat1, 8009), (aux_sym_fb_diagram_repeat1, 8013),
     (sym_identifier, 298), (aux_sym_ERR_unexpected_this_in_path_token1, 304),
     (aux_sym_ERR_unexpected_super_in_path_token1, 306), (sym_line_comment, 3),
     (anon_sym_LBRACE, 308), (aux_sym_test_pragma_token1, 9), (aux_sym_once_pragma_token1, 11),
     (aux_sym_must_call_pragma_token1, 13), (aux_sym_export_pragma_token1, 15),
     (anon_sym_SEMI, 310), (anon_sym_PERCENT, 312), (aux_sym_input_decls_token1, 314),
     (aux_sym_output_decls_token1, 316), (aux_sym_in_out_decls_token1, 318),
     (aux_sym_var_decls_token1, 320), (aux_sym_temp_var_decls_token1, 322),
     (aux_sym_external_var_decls_token1, 324), (aux_sym_global_var_decls_token1, 326),
     (aux_sym_fb_decl_token4, 1982), (aux_sym_method_decl_token1, 330),
     (aux_sym_prog_access_decls_token1, 332), (aux_sym_initial_step_token1, 334),
     (aux_sym_config_init_token1, 336), (aux_sym__stmt_token1, 340), (aux_sym__stmt_token2, 340),
     (aux_sym__stmt_token3, 340), (aux_sym_if_stmt_token1, 342), (aux_sym_case_stmt_token1, 344),
     (aux_sym_for_stmt_token1, 346), (aux_sym_while_stmt_token1, 348),
     (aux_sym_repeat_stmt_token1, 350), (aux_sym_raise_stmt_token1, 352),
     (aux_sym_try_stmt_token1, 354), (aux_sym_try_stmt_token2, 356),
     (aux_sym_catch_clause_token1, 356), (aux_sym_finally_clause_token1, 356), (sym_ld_rung, 358),
     (sym_fbd_network, 360), (sym_c_style_comment, 3), (sym_pascal_style_comment, 3),
     (sym_pragma, 3)]"

lemma ts_parse_row_826_scan: "row_scan tokens_63_2 0 ts_parse_row_826 = Some (Suc (Suc (Suc (Suc 0))))"
  unfolding ts_parse_row_826_def by simp

text \<open>Lines 148660 to 148772.\<close>

definition ts_parse_row_827 :: parse_row where
  "ts_parse_row_827 =
    [(sym_ERR_assign_func_call, 7530), (sym_ERR_unexpected_this_in_path, 2372),
     (sym_ERR_unexpected_super_in_path, 2372), (sym_ERR_fb_variables_after_method, 1829),
     (sym_ERR_var_access_not_allowed, 3160), (sym_ERR_var_config_not_allowed, 3160),
     (sym_ERR_var_global_not_allowed, 3160), (sym_ERR_method_decl_in_body, 3150),
     (sym_extern_pragma, 7490), (sym_wasm_pragma, 3150), (sym_warn_pragma, 7490),
     (sym_allow_pragma, 3140), (sym_test_pragma, 7490), (sym_once_pragma, 7490),
     (sym_must_call_pragma, 7490), (sym_export_pragma, 7490), (sym_pou_pragma, 7194),
     (sym_direct_variable, 7675), (sym_deref_expression, 2373), (sym_variable, 7599),
     (sym_var_access, 2373), (sym_in_out_decls, 3160), (sym_var_decls, 3160),
     (sym_retain_var_decls, 3160), (sym_temp_var_decls, 3160), (sym_external_var_decls, 3160),
     (sym_global_var_decls, 2947), (sym_loc_partly_var_decl, 3160), (sym__fb_variables, 2343),
     (sym_fb_input_decls, 3160), (sym_fb_output_decls, 3160), (sym_no_retain_var_decls, 3160),
     (sym_fb_body, 8834), (sym_method_decl, 2549), (sym_prog_access_decls, 3043), (sym_SFC, 7970),
     (sym_SFC_network, 7612), (sym_initial_step, 7439), (sym_config_init, 3047),
     (sym_variable_access, 7530), (sym_func_call, 2961), (sym_stmt_list, 7970), (sym__stmt, 2024),
     (sym_assign, 3150), (sym_if_stmt, 3150), (sym_case_stmt, 3150), (sym_for_stmt, 3150),
     (sym_while_stmt, 3150), (sym_repeat_stmt, 3150), (sym_raise_stmt, 3150), (sym_try_stmt, 3150),
     (sym_ERR_clause_outside_try, 3150), (sym_begin_path_expression, 2943), (sym_invocation, 2934),
     (sym_any_invocation, 2935), (sym_this_invocation, 2641), (sym_super_invocation, 2641),
     (sym_super_body_invocation, 2935), (sym_path_expression, 2627), (sym_field_expression, 2373),
     (sym_index_expression, 2373), (sym_ladder_diagram, 7970), (sym_fb_diagram, 7970),
     (aux_sym_ERR_fb_variables_after_method_repeat1, 2343), (aux_sym_func_decl_repeat1, 7194),
     (aux_sym_fb_decl_repeat3, 2549), (aux_sym_SFC_repeat1, 7612),
     (aux_sym_stmt_list_repeat1, 2024), (aux_sym_ladder_diagram_repeat1, 8009),
     (aux_sym_fb_diagram_repeat1, 8013), (sym_identifier, 298),
     (aux_sym_ERR_unexpected_this_in_path_token1, 304),
     (aux_sym_ERR_unexpected_super_in_path_token1, 306), (sym_line_comment, 3),
     (anon_sym_LBRACE, 308), (aux_sym_test_pragma_token1, 9), (aux_sym_once_pragma_token1, 11),
     (aux_sym_must_call_pragma_token1, 13), (aux_sym_export_pragma_token1, 15),
     (anon_sym_SEMI, 310), (anon_sym_PERCENT, 312), (aux_sym_input_decls_token1, 314),
     (aux_sym_output_decls_token1, 316), (aux_sym_in_out_decls_token1, 318),
     (aux_sym_var_decls_token1, 320), (aux_sym_temp_var_decls_token1, 322),
     (aux_sym_external_var_decls_token1, 324), (aux_sym_global_var_decls_token1, 326),
     (aux_sym_fb_decl_token4, 1984), (aux_sym_method_decl_token1, 330),
     (aux_sym_prog_access_decls_token1, 332), (aux_sym_initial_step_token1, 334),
     (aux_sym_config_init_token1, 336), (aux_sym__stmt_token1, 340), (aux_sym__stmt_token2, 340),
     (aux_sym__stmt_token3, 340), (aux_sym_if_stmt_token1, 342), (aux_sym_case_stmt_token1, 344),
     (aux_sym_for_stmt_token1, 346), (aux_sym_while_stmt_token1, 348),
     (aux_sym_repeat_stmt_token1, 350), (aux_sym_raise_stmt_token1, 352),
     (aux_sym_try_stmt_token1, 354), (aux_sym_try_stmt_token2, 356),
     (aux_sym_catch_clause_token1, 356), (aux_sym_finally_clause_token1, 356), (sym_ld_rung, 358),
     (sym_fbd_network, 360), (sym_c_style_comment, 3), (sym_pascal_style_comment, 3),
     (sym_pragma, 3)]"

lemma ts_parse_row_827_scan: "row_scan tokens_63_2 0 ts_parse_row_827 = Some (Suc (Suc (Suc (Suc 0))))"
  unfolding ts_parse_row_827_def by simp

text \<open>Lines 148773 to 148885.\<close>

definition ts_parse_row_828 :: parse_row where
  "ts_parse_row_828 =
    [(sym_ERR_assign_func_call, 7530), (sym_ERR_unexpected_this_in_path, 2372),
     (sym_ERR_unexpected_super_in_path, 2372), (sym_ERR_fb_variables_after_method, 1830),
     (sym_ERR_var_access_not_allowed, 3160), (sym_ERR_var_config_not_allowed, 3160),
     (sym_ERR_var_global_not_allowed, 3160), (sym_ERR_method_decl_in_body, 3150),
     (sym_extern_pragma, 7490), (sym_wasm_pragma, 3150), (sym_warn_pragma, 7490),
     (sym_allow_pragma, 3140), (sym_test_pragma, 7490), (sym_once_pragma, 7490),
     (sym_must_call_pragma, 7490), (sym_export_pragma, 7490), (sym_pou_pragma, 7194),
     (sym_direct_variable, 7675), (sym_deref_expression, 2373), (sym_variable, 7599),
     (sym_var_access, 2373), (sym_in_out_decls, 3160), (sym_var_decls, 3160),
     (sym_retain_var_decls, 3160), (sym_temp_var_decls, 3160), (sym_external_var_decls, 3160),
     (sym_global_var_decls, 2947), (sym_loc_partly_var_decl, 3160), (sym__fb_variables, 2347),
     (sym_fb_input_decls, 3160), (sym_fb_output_decls, 3160), (sym_no_retain_var_decls, 3160),
     (sym_fb_body, 8839), (sym_method_decl, 843), (sym_prog_access_decls, 3043), (sym_SFC, 7970),
     (sym_SFC_network, 7612), (sym_initial_step, 7439), (sym_config_init, 3047),
     (sym_variable_access, 7530), (sym_func_call, 2961), (sym_stmt_list, 7970), (sym__stmt, 2024),
     (sym_assign, 3150), (sym_if_stmt, 3150), (sym_case_stmt, 3150), (sym_for_stmt, 3150),
     (sym_while_stmt, 3150), (sym_repeat_stmt, 3150), (sym_raise_stmt, 3150), (sym_try_stmt, 3150),
     (sym_ERR_clause_outside_try, 3150), (sym_begin_path_expression, 2943), (sym_invocation, 2934),
     (sym_any_invocation, 2935), (sym_this_invocation, 2641), (sym_super_invocation, 2641),
     (sym_super_body_invocation, 2935), (sym_path_expression, 2627), (sym_field_expression, 2373),
     (sym_index_expression, 2373), (sym_ladder_diagram, 7970), (sym_fb_diagram, 7970),
     (aux_sym_ERR_fb_variables_after_method_repeat1, 2347), (aux_sym_func_decl_repeat1, 7194),
     (aux_sym_fb_decl_repeat3, 843), (aux_sym_SFC_repeat1, 7612), (aux_sym_stmt_list_repeat1, 2024),
     (aux_sym_ladder_diagram_repeat1, 8009), (aux_sym_fb_diagram_repeat1, 8013),
     (sym_identifier, 298), (aux_sym_ERR_unexpected_this_in_path_token1, 304),
     (aux_sym_ERR_unexpected_super_in_path_token1, 306), (sym_line_comment, 3),
     (anon_sym_LBRACE, 308), (aux_sym_test_pragma_token1, 9), (aux_sym_once_pragma_token1, 11),
     (aux_sym_must_call_pragma_token1, 13), (aux_sym_export_pragma_token1, 15),
     (anon_sym_SEMI, 310), (anon_sym_PERCENT, 312), (aux_sym_input_decls_token1, 314),
     (aux_sym_output_decls_token1, 316), (aux_sym_in_out_decls_token1, 318),
     (aux_sym_var_decls_token1, 320), (aux_sym_temp_var_decls_token1, 322),
     (aux_sym_external_var_decls_token1, 324), (aux_sym_global_var_decls_token1, 326),
     (aux_sym_fb_decl_token4, 1986), (aux_sym_method_decl_token1, 330),
     (aux_sym_prog_access_decls_token1, 332), (aux_sym_initial_step_token1, 334),
     (aux_sym_config_init_token1, 336), (aux_sym__stmt_token1, 340), (aux_sym__stmt_token2, 340),
     (aux_sym__stmt_token3, 340), (aux_sym_if_stmt_token1, 342), (aux_sym_case_stmt_token1, 344),
     (aux_sym_for_stmt_token1, 346), (aux_sym_while_stmt_token1, 348),
     (aux_sym_repeat_stmt_token1, 350), (aux_sym_raise_stmt_token1, 352),
     (aux_sym_try_stmt_token1, 354), (aux_sym_try_stmt_token2, 356),
     (aux_sym_catch_clause_token1, 356), (aux_sym_finally_clause_token1, 356), (sym_ld_rung, 358),
     (sym_fbd_network, 360), (sym_c_style_comment, 3), (sym_pascal_style_comment, 3),
     (sym_pragma, 3)]"

lemma ts_parse_row_828_scan: "row_scan tokens_63_2 0 ts_parse_row_828 = Some (Suc (Suc (Suc (Suc 0))))"
  unfolding ts_parse_row_828_def by simp

text \<open>Lines 148886 to 148998.\<close>

definition ts_parse_row_829 :: parse_row where
  "ts_parse_row_829 =
    [(sym_ERR_assign_func_call, 7530), (sym_ERR_unexpected_this_in_path, 2372),
     (sym_ERR_unexpected_super_in_path, 2372), (sym_ERR_fb_variables_after_method, 1871),
     (sym_ERR_var_access_not_allowed, 3160), (sym_ERR_var_config_not_allowed, 3160),
     (sym_ERR_var_global_not_allowed, 3160), (sym_ERR_method_decl_in_body, 3150),
     (sym_extern_pragma, 7490), (sym_wasm_pragma, 3150), (sym_warn_pragma, 7490),
     (sym_allow_pragma, 3140), (sym_test_pragma, 7490), (sym_once_pragma, 7490),
     (sym_must_call_pragma, 7490), (sym_export_pragma, 7490), (sym_pou_pragma, 7194),
     (sym_direct_variable, 7675), (sym_deref_expression, 2373), (sym_variable, 7599),
     (sym_var_access, 2373), (sym_in_out_decls, 3160), (sym_var_decls, 3160),
     (sym_retain_var_decls, 3160), (sym_temp_var_decls, 3160), (sym_external_var_decls, 3160),
     (sym_global_var_decls, 2947), (sym_loc_partly_var_decl, 3160), (sym__fb_variables, 2343),
     (sym_fb_input_decls, 3160), (sym_fb_output_decls, 3160), (sym_no_retain_var_decls, 3160),
     (sym_fb_body, 9641), (sym_method_decl, 2549), (sym_prog_access_decls, 3043), (sym_SFC, 7970),
     (sym_SFC_network, 7612), (sym_initial_step, 7439), (sym_config_init, 3047),
     (sym_variable_access, 7530), (sym_func_call, 2961), (sym_stmt_list, 7970), (sym__stmt, 2024),
     (sym_assign, 3150), (sym_if_stmt, 3150), (sym_case_stmt, 3150), (sym_for_stmt, 3150),
     (sym_while_stmt, 3150), (sym_repeat_stmt, 3150), (sym_raise_stmt, 3150), (sym_try_stmt, 3150),
     (sym_ERR_clause_outside_try, 3150), (sym_begin_path_expression, 2943), (sym_invocation, 2934),
     (sym_any_invocation, 2935), (sym_this_invocation, 2641), (sym_super_invocation, 2641),
     (sym_super_body_invocation, 2935), (sym_path_expression, 2627), (sym_field_expression, 2373),
     (sym_index_expression, 2373), (sym_ladder_diagram, 7970), (sym_fb_diagram, 7970),
     (aux_sym_ERR_fb_variables_after_method_repeat1, 2343), (aux_sym_func_decl_repeat1, 7194),
     (aux_sym_fb_decl_repeat3, 2549), (aux_sym_SFC_repeat1, 7612),
     (aux_sym_stmt_list_repeat1, 2024), (aux_sym_ladder_diagram_repeat1, 8009),
     (aux_sym_fb_diagram_repeat1, 8013), (sym_identifier, 298),
     (aux_sym_ERR_unexpected_this_in_path_token1, 304),
     (aux_sym_ERR_unexpected_super_in_path_token1, 306), (sym_line_comment, 3),
     (anon_sym_LBRACE, 308), (aux_sym_test_pragma_token1, 9), (aux_sym_once_pragma_token1, 11),
     (aux_sym_must_call_pragma_token1, 13), (aux_sym_export_pragma_token1, 15),
     (anon_sym_SEMI, 310), (anon_sym_PERCENT, 312), (aux_sym_input_decls_token1, 314),
     (aux_sym_output_decls_token1, 316), (aux_sym_in_out_decls_token1, 318),
     (aux_sym_var_decls_token1, 320), (aux_sym_temp_var_decls_token1, 322),
     (aux_sym_external_var_decls_token1, 324), (aux_sym_global_var_decls_token1, 326),
     (aux_sym_fb_decl_token4, 1988), (aux_sym_method_decl_token1, 330),
     (aux_sym_prog_access_decls_token1, 332), (aux_sym_initial_step_token1, 334),
     (aux_sym_config_init_token1, 336), (aux_sym__stmt_token1, 340), (aux_sym__stmt_token2, 340),
     (aux_sym__stmt_token3, 340), (aux_sym_if_stmt_token1, 342), (aux_sym_case_stmt_token1, 344),
     (aux_sym_for_stmt_token1, 346), (aux_sym_while_stmt_token1, 348),
     (aux_sym_repeat_stmt_token1, 350), (aux_sym_raise_stmt_token1, 352),
     (aux_sym_try_stmt_token1, 354), (aux_sym_try_stmt_token2, 356),
     (aux_sym_catch_clause_token1, 356), (aux_sym_finally_clause_token1, 356), (sym_ld_rung, 358),
     (sym_fbd_network, 360), (sym_c_style_comment, 3), (sym_pascal_style_comment, 3),
     (sym_pragma, 3)]"

lemma ts_parse_row_829_scan: "row_scan tokens_63_2 0 ts_parse_row_829 = Some (Suc (Suc (Suc (Suc 0))))"
  unfolding ts_parse_row_829_def by simp

text \<open>Lines 148999 to 149111.\<close>

definition ts_parse_row_830 :: parse_row where
  "ts_parse_row_830 =
    [(sym_ERR_assign_func_call, 7530), (sym_ERR_unexpected_this_in_path, 2372),
     (sym_ERR_unexpected_super_in_path, 2372), (sym_ERR_fb_variables_after_method, 1833),
     (sym_ERR_var_access_not_allowed, 3160), (sym_ERR_var_config_not_allowed, 3160),
     (sym_ERR_var_global_not_allowed, 3160), (sym_ERR_method_decl_in_body, 3150),
     (sym_extern_pragma, 7490), (sym_wasm_pragma, 3150), (sym_warn_pragma, 7490),
     (sym_allow_pragma, 3140), (sym_test_pragma, 7490), (sym_once_pragma, 7490),
     (sym_must_call_pragma, 7490), (sym_export_pragma, 7490), (sym_pou_pragma, 7194),
     (sym_direct_variable, 7675), (sym_deref_expression, 2373), (sym_variable, 7599),
     (sym_var_access, 2373), (sym_in_out_decls, 3160), (sym_var_decls, 3160),
     (sym_retain_var_decls, 3160), (sym_temp_var_decls, 3160), (sym_external_var_decls, 3160),
     (sym_global_var_decls, 2947), (sym_loc_partly_var_decl, 3160), (sym__fb_variables, 2343),
     (sym_fb_input_decls, 3160), (sym_fb_output_decls, 3160), (sym_no_retain_var_decls, 3160),
     (sym_fb_body, 8848), (sym_method_decl, 2549), (sym_prog_access_decls, 3043), (sym_SFC, 7970),
     (sym_SFC_network, 7612), (sym_initial_step, 7439), (sym_config_init, 3047),
     (sym_variable_access, 7530), (sym_func_call, 2961), (sym_stmt_list, 7970), (sym__stmt, 2024),
     (sym_assign, 3150), (sym_if_stmt, 3150), (sym_case_stmt, 3150), (sym_for_stmt, 3150),
     (sym_while_stmt, 3150), (sym_repeat_stmt, 3150), (sym_raise_stmt, 3150), (sym_try_stmt, 3150),
     (sym_ERR_clause_outside_try, 3150), (sym_begin_path_expression, 2943), (sym_invocation, 2934),
     (sym_any_invocation, 2935), (sym_this_invocation, 2641), (sym_super_invocation, 2641),
     (sym_super_body_invocation, 2935), (sym_path_expression, 2627), (sym_field_expression, 2373),
     (sym_index_expression, 2373), (sym_ladder_diagram, 7970), (sym_fb_diagram, 7970),
     (aux_sym_ERR_fb_variables_after_method_repeat1, 2343), (aux_sym_func_decl_repeat1, 7194),
     (aux_sym_fb_decl_repeat3, 2549), (aux_sym_SFC_repeat1, 7612),
     (aux_sym_stmt_list_repeat1, 2024), (aux_sym_ladder_diagram_repeat1, 8009),
     (aux_sym_fb_diagram_repeat1, 8013), (sym_identifier, 298),
     (aux_sym_ERR_unexpected_this_in_path_token1, 304),
     (aux_sym_ERR_unexpected_super_in_path_token1, 306), (sym_line_comment, 3),
     (anon_sym_LBRACE, 308), (aux_sym_test_pragma_token1, 9), (aux_sym_once_pragma_token1, 11),
     (aux_sym_must_call_pragma_token1, 13), (aux_sym_export_pragma_token1, 15),
     (anon_sym_SEMI, 310), (anon_sym_PERCENT, 312), (aux_sym_input_decls_token1, 314),
     (aux_sym_output_decls_token1, 316), (aux_sym_in_out_decls_token1, 318),
     (aux_sym_var_decls_token1, 320), (aux_sym_temp_var_decls_token1, 322),
     (aux_sym_external_var_decls_token1, 324), (aux_sym_global_var_decls_token1, 326),
     (aux_sym_fb_decl_token4, 1990), (aux_sym_method_decl_token1, 330),
     (aux_sym_prog_access_decls_token1, 332), (aux_sym_initial_step_token1, 334),
     (aux_sym_config_init_token1, 336), (aux_sym__stmt_token1, 340), (aux_sym__stmt_token2, 340),
     (aux_sym__stmt_token3, 340), (aux_sym_if_stmt_token1, 342), (aux_sym_case_stmt_token1, 344),
     (aux_sym_for_stmt_token1, 346), (aux_sym_while_stmt_token1, 348),
     (aux_sym_repeat_stmt_token1, 350), (aux_sym_raise_stmt_token1, 352),
     (aux_sym_try_stmt_token1, 354), (aux_sym_try_stmt_token2, 356),
     (aux_sym_catch_clause_token1, 356), (aux_sym_finally_clause_token1, 356), (sym_ld_rung, 358),
     (sym_fbd_network, 360), (sym_c_style_comment, 3), (sym_pascal_style_comment, 3),
     (sym_pragma, 3)]"

lemma ts_parse_row_830_scan: "row_scan tokens_63_2 0 ts_parse_row_830 = Some (Suc (Suc (Suc (Suc 0))))"
  unfolding ts_parse_row_830_def by simp

text \<open>Lines 149112 to 149224.\<close>

definition ts_parse_row_831 :: parse_row where
  "ts_parse_row_831 =
    [(sym_ERR_assign_func_call, 7530), (sym_ERR_unexpected_this_in_path, 2372),
     (sym_ERR_unexpected_super_in_path, 2372), (sym_ERR_fb_variables_after_method, 1834),
     (sym_ERR_var_access_not_allowed, 3160), (sym_ERR_var_config_not_allowed, 3160),
     (sym_ERR_var_global_not_allowed, 3160), (sym_ERR_method_decl_in_body, 3150),
     (sym_extern_pragma, 7490), (sym_wasm_pragma, 3150), (sym_warn_pragma, 7490),
     (sym_allow_pragma, 3140), (sym_test_pragma, 7490), (sym_once_pragma, 7490),
     (sym_must_call_pragma, 7490), (sym_export_pragma, 7490), (sym_pou_pragma, 7194),
     (sym_direct_variable, 7675), (sym_deref_expression, 2373), (sym_variable, 7599),
     (sym_var_access, 2373), (sym_in_out_decls, 3160), (sym_var_decls, 3160),
     (sym_retain_var_decls, 3160), (sym_temp_var_decls, 3160), (sym_external_var_decls, 3160),
     (sym_global_var_decls, 2947), (sym_loc_partly_var_decl, 3160), (sym__fb_variables, 2343),
     (sym_fb_input_decls, 3160), (sym_fb_output_decls, 3160), (sym_no_retain_var_decls, 3160),
     (sym_fb_body, 8868), (sym_method_decl, 2549), (sym_prog_access_decls, 3043), (sym_SFC, 7970),
     (sym_SFC_network, 7612), (sym_initial_step, 7439), (sym_config_init, 3047),
     (sym_variable_access, 7530), (sym_func_call, 2961), (sym_stmt_list, 7970), (sym__stmt, 2024),
     (sym_assign, 3150), (sym_if_stmt, 3150), (sym_case_stmt, 3150), (sym_for_stmt, 3150),
     (sym_while_stmt, 3150), (sym_repeat_stmt, 3150), (sym_raise_stmt, 3150), (sym_try_stmt, 3150),
     (sym_ERR_clause_outside_try, 3150), (sym_begin_path_expression, 2943), (sym_invocation, 2934),
     (sym_any_invocation, 2935), (sym_this_invocation, 2641), (sym_super_invocation, 2641),
     (sym_super_body_invocation, 2935), (sym_path_expression, 2627), (sym_field_expression, 2373),
     (sym_index_expression, 2373), (sym_ladder_diagram, 7970), (sym_fb_diagram, 7970),
     (aux_sym_ERR_fb_variables_after_method_repeat1, 2343), (aux_sym_func_decl_repeat1, 7194),
     (aux_sym_fb_decl_repeat3, 2549), (aux_sym_SFC_repeat1, 7612),
     (aux_sym_stmt_list_repeat1, 2024), (aux_sym_ladder_diagram_repeat1, 8009),
     (aux_sym_fb_diagram_repeat1, 8013), (sym_identifier, 298),
     (aux_sym_ERR_unexpected_this_in_path_token1, 304),
     (aux_sym_ERR_unexpected_super_in_path_token1, 306), (sym_line_comment, 3),
     (anon_sym_LBRACE, 308), (aux_sym_test_pragma_token1, 9), (aux_sym_once_pragma_token1, 11),
     (aux_sym_must_call_pragma_token1, 13), (aux_sym_export_pragma_token1, 15),
     (anon_sym_SEMI, 310), (anon_sym_PERCENT, 312), (aux_sym_input_decls_token1, 314),
     (aux_sym_output_decls_token1, 316), (aux_sym_in_out_decls_token1, 318),
     (aux_sym_var_decls_token1, 320), (aux_sym_temp_var_decls_token1, 322),
     (aux_sym_external_var_decls_token1, 324), (aux_sym_global_var_decls_token1, 326),
     (aux_sym_fb_decl_token4, 1992), (aux_sym_method_decl_token1, 330),
     (aux_sym_prog_access_decls_token1, 332), (aux_sym_initial_step_token1, 334),
     (aux_sym_config_init_token1, 336), (aux_sym__stmt_token1, 340), (aux_sym__stmt_token2, 340),
     (aux_sym__stmt_token3, 340), (aux_sym_if_stmt_token1, 342), (aux_sym_case_stmt_token1, 344),
     (aux_sym_for_stmt_token1, 346), (aux_sym_while_stmt_token1, 348),
     (aux_sym_repeat_stmt_token1, 350), (aux_sym_raise_stmt_token1, 352),
     (aux_sym_try_stmt_token1, 354), (aux_sym_try_stmt_token2, 356),
     (aux_sym_catch_clause_token1, 356), (aux_sym_finally_clause_token1, 356), (sym_ld_rung, 358),
     (sym_fbd_network, 360), (sym_c_style_comment, 3), (sym_pascal_style_comment, 3),
     (sym_pragma, 3)]"

lemma ts_parse_row_831_scan: "row_scan tokens_63_2 0 ts_parse_row_831 = Some (Suc (Suc (Suc (Suc 0))))"
  unfolding ts_parse_row_831_def by simp

text \<open>Lines 149225 to 149337.\<close>

definition ts_parse_row_832 :: parse_row where
  "ts_parse_row_832 =
    [(sym_ERR_assign_func_call, 7530), (sym_ERR_unexpected_this_in_path, 2372),
     (sym_ERR_unexpected_super_in_path, 2372), (sym_ERR_fb_variables_after_method, 1835),
     (sym_ERR_var_access_not_allowed, 3160), (sym_ERR_var_config_not_allowed, 3160),
     (sym_ERR_var_global_not_allowed, 3160), (sym_ERR_method_decl_in_body, 3150),
     (sym_extern_pragma, 7490), (sym_wasm_pragma, 3150), (sym_warn_pragma, 7490),
     (sym_allow_pragma, 3140), (sym_test_pragma, 7490), (sym_once_pragma, 7490),
     (sym_must_call_pragma, 7490), (sym_export_pragma, 7490), (sym_pou_pragma, 7194),
     (sym_direct_variable, 7675), (sym_deref_expression, 2373), (sym_variable, 7599),
     (sym_var_access, 2373), (sym_in_out_decls, 3160), (sym_var_decls, 3160),
     (sym_retain_var_decls, 3160), (sym_temp_var_decls, 3160), (sym_external_var_decls, 3160),
     (sym_global_var_decls, 2947), (sym_loc_partly_var_decl, 3160), (sym__fb_variables, 2343),
     (sym_fb_input_decls, 3160), (sym_fb_output_decls, 3160), (sym_no_retain_var_decls, 3160),
     (sym_fb_body, 8889), (sym_method_decl, 2549), (sym_prog_access_decls, 3043), (sym_SFC, 7970),
     (sym_SFC_network, 7612), (sym_initial_step, 7439), (sym_config_init, 3047),
     (sym_variable_access, 7530), (sym_func_call, 2961), (sym_stmt_list, 7970), (sym__stmt, 2024),
     (sym_assign, 3150), (sym_if_stmt, 3150), (sym_case_stmt, 3150), (sym_for_stmt, 3150),
     (sym_while_stmt, 3150), (sym_repeat_stmt, 3150), (sym_raise_stmt, 3150), (sym_try_stmt, 3150),
     (sym_ERR_clause_outside_try, 3150), (sym_begin_path_expression, 2943), (sym_invocation, 2934),
     (sym_any_invocation, 2935), (sym_this_invocation, 2641), (sym_super_invocation, 2641),
     (sym_super_body_invocation, 2935), (sym_path_expression, 2627), (sym_field_expression, 2373),
     (sym_index_expression, 2373), (sym_ladder_diagram, 7970), (sym_fb_diagram, 7970),
     (aux_sym_ERR_fb_variables_after_method_repeat1, 2343), (aux_sym_func_decl_repeat1, 7194),
     (aux_sym_fb_decl_repeat3, 2549), (aux_sym_SFC_repeat1, 7612),
     (aux_sym_stmt_list_repeat1, 2024), (aux_sym_ladder_diagram_repeat1, 8009),
     (aux_sym_fb_diagram_repeat1, 8013), (sym_identifier, 298),
     (aux_sym_ERR_unexpected_this_in_path_token1, 304),
     (aux_sym_ERR_unexpected_super_in_path_token1, 306), (sym_line_comment, 3),
     (anon_sym_LBRACE, 308), (aux_sym_test_pragma_token1, 9), (aux_sym_once_pragma_token1, 11),
     (aux_sym_must_call_pragma_token1, 13), (aux_sym_export_pragma_token1, 15),
     (anon_sym_SEMI, 310), (anon_sym_PERCENT, 312), (aux_sym_input_decls_token1, 314),
     (aux_sym_output_decls_token1, 316), (aux_sym_in_out_decls_token1, 318),
     (aux_sym_var_decls_token1, 320), (aux_sym_temp_var_decls_token1, 322),
     (aux_sym_external_var_decls_token1, 324), (aux_sym_global_var_decls_token1, 326),
     (aux_sym_fb_decl_token4, 1994), (aux_sym_method_decl_token1, 330),
     (aux_sym_prog_access_decls_token1, 332), (aux_sym_initial_step_token1, 334),
     (aux_sym_config_init_token1, 336), (aux_sym__stmt_token1, 340), (aux_sym__stmt_token2, 340),
     (aux_sym__stmt_token3, 340), (aux_sym_if_stmt_token1, 342), (aux_sym_case_stmt_token1, 344),
     (aux_sym_for_stmt_token1, 346), (aux_sym_while_stmt_token1, 348),
     (aux_sym_repeat_stmt_token1, 350), (aux_sym_raise_stmt_token1, 352),
     (aux_sym_try_stmt_token1, 354), (aux_sym_try_stmt_token2, 356),
     (aux_sym_catch_clause_token1, 356), (aux_sym_finally_clause_token1, 356), (sym_ld_rung, 358),
     (sym_fbd_network, 360), (sym_c_style_comment, 3), (sym_pascal_style_comment, 3),
     (sym_pragma, 3)]"

lemma ts_parse_row_832_scan: "row_scan tokens_63_2 0 ts_parse_row_832 = Some (Suc (Suc (Suc (Suc 0))))"
  unfolding ts_parse_row_832_def by simp

text \<open>Lines 149338 to 149450.\<close>

definition ts_parse_row_833 :: parse_row where
  "ts_parse_row_833 =
    [(sym_ERR_assign_func_call, 7530), (sym_ERR_unexpected_this_in_path, 2372),
     (sym_ERR_unexpected_super_in_path, 2372), (sym_ERR_fb_variables_after_method, 1836),
     (sym_ERR_var_access_not_allowed, 3160), (sym_ERR_var_config_not_allowed, 3160),
     (sym_ERR_var_global_not_allowed, 3160), (sym_ERR_method_decl_in_body, 3150),
     (sym_extern_pragma, 7490), (sym_wasm_pragma, 3150), (sym_warn_pragma, 7490),
     (sym_allow_pragma, 3140), (sym_test_pragma, 7490), (sym_once_pragma, 7490),
     (sym_must_call_pragma, 7490), (sym_export_pragma, 7490), (sym_pou_pragma, 7194),
     (sym_direct_variable, 7675), (sym_deref_expression, 2373), (sym_variable, 7599),
     (sym_var_access, 2373), (sym_in_out_decls, 3160), (sym_var_decls, 3160),
     (sym_retain_var_decls, 3160), (sym_temp_var_decls, 3160), (sym_external_var_decls, 3160),
     (sym_global_var_decls, 2947), (sym_loc_partly_var_decl, 3160), (sym__fb_variables, 2343),
     (sym_fb_input_decls, 3160), (sym_fb_output_decls, 3160), (sym_no_retain_var_decls, 3160),
     (sym_fb_body, 8918), (sym_method_decl, 2549), (sym_prog_access_decls, 3043), (sym_SFC, 7970),
     (sym_SFC_network, 7612), (sym_initial_step, 7439), (sym_config_init, 3047),
     (sym_variable_access, 7530), (sym_func_call, 2961), (sym_stmt_list, 7970), (sym__stmt, 2024),
     (sym_assign, 3150), (sym_if_stmt, 3150), (sym_case_stmt, 3150), (sym_for_stmt, 3150),
     (sym_while_stmt, 3150), (sym_repeat_stmt, 3150), (sym_raise_stmt, 3150), (sym_try_stmt, 3150),
     (sym_ERR_clause_outside_try, 3150), (sym_begin_path_expression, 2943), (sym_invocation, 2934),
     (sym_any_invocation, 2935), (sym_this_invocation, 2641), (sym_super_invocation, 2641),
     (sym_super_body_invocation, 2935), (sym_path_expression, 2627), (sym_field_expression, 2373),
     (sym_index_expression, 2373), (sym_ladder_diagram, 7970), (sym_fb_diagram, 7970),
     (aux_sym_ERR_fb_variables_after_method_repeat1, 2343), (aux_sym_func_decl_repeat1, 7194),
     (aux_sym_fb_decl_repeat3, 2549), (aux_sym_SFC_repeat1, 7612),
     (aux_sym_stmt_list_repeat1, 2024), (aux_sym_ladder_diagram_repeat1, 8009),
     (aux_sym_fb_diagram_repeat1, 8013), (sym_identifier, 298),
     (aux_sym_ERR_unexpected_this_in_path_token1, 304),
     (aux_sym_ERR_unexpected_super_in_path_token1, 306), (sym_line_comment, 3),
     (anon_sym_LBRACE, 308), (aux_sym_test_pragma_token1, 9), (aux_sym_once_pragma_token1, 11),
     (aux_sym_must_call_pragma_token1, 13), (aux_sym_export_pragma_token1, 15),
     (anon_sym_SEMI, 310), (anon_sym_PERCENT, 312), (aux_sym_input_decls_token1, 314),
     (aux_sym_output_decls_token1, 316), (aux_sym_in_out_decls_token1, 318),
     (aux_sym_var_decls_token1, 320), (aux_sym_temp_var_decls_token1, 322),
     (aux_sym_external_var_decls_token1, 324), (aux_sym_global_var_decls_token1, 326),
     (aux_sym_fb_decl_token4, 1996), (aux_sym_method_decl_token1, 330),
     (aux_sym_prog_access_decls_token1, 332), (aux_sym_initial_step_token1, 334),
     (aux_sym_config_init_token1, 336), (aux_sym__stmt_token1, 340), (aux_sym__stmt_token2, 340),
     (aux_sym__stmt_token3, 340), (aux_sym_if_stmt_token1, 342), (aux_sym_case_stmt_token1, 344),
     (aux_sym_for_stmt_token1, 346), (aux_sym_while_stmt_token1, 348),
     (aux_sym_repeat_stmt_token1, 350), (aux_sym_raise_stmt_token1, 352),
     (aux_sym_try_stmt_token1, 354), (aux_sym_try_stmt_token2, 356),
     (aux_sym_catch_clause_token1, 356), (aux_sym_finally_clause_token1, 356), (sym_ld_rung, 358),
     (sym_fbd_network, 360), (sym_c_style_comment, 3), (sym_pascal_style_comment, 3),
     (sym_pragma, 3)]"

lemma ts_parse_row_833_scan: "row_scan tokens_63_2 0 ts_parse_row_833 = Some (Suc (Suc (Suc (Suc 0))))"
  unfolding ts_parse_row_833_def by simp

text \<open>Lines 149451 to 149563.\<close>

definition ts_parse_row_834 :: parse_row where
  "ts_parse_row_834 =
    [(sym_ERR_assign_func_call, 7530), (sym_ERR_unexpected_this_in_path, 2372),
     (sym_ERR_unexpected_super_in_path, 2372), (sym_ERR_fb_variables_after_method, 1837),
     (sym_ERR_var_access_not_allowed, 3160), (sym_ERR_var_config_not_allowed, 3160),
     (sym_ERR_var_global_not_allowed, 3160), (sym_ERR_method_decl_in_body, 3150),
     (sym_extern_pragma, 7490), (sym_wasm_pragma, 3150), (sym_warn_pragma, 7490),
     (sym_allow_pragma, 3140), (sym_test_pragma, 7490), (sym_once_pragma, 7490),
     (sym_must_call_pragma, 7490), (sym_export_pragma, 7490), (sym_pou_pragma, 7194),
     (sym_direct_variable, 7675), (sym_deref_expression, 2373), (sym_variable, 7599),
     (sym_var_access, 2373), (sym_in_out_decls, 3160), (sym_var_decls, 3160),
     (sym_retain_var_decls, 3160), (sym_temp_var_decls, 3160), (sym_external_var_decls, 3160),
     (sym_global_var_decls, 2947), (sym_loc_partly_var_decl, 3160), (sym__fb_variables, 2343),
     (sym_fb_input_decls, 3160), (sym_fb_output_decls, 3160), (sym_no_retain_var_decls, 3160),
     (sym_fb_body, 8941), (sym_method_decl, 2549), (sym_prog_access_decls, 3043), (sym_SFC, 7970),
     (sym_SFC_network, 7612), (sym_initial_step, 7439), (sym_config_init, 3047),
     (sym_variable_access, 7530), (sym_func_call, 2961), (sym_stmt_list, 7970), (sym__stmt, 2024),
     (sym_assign, 3150), (sym_if_stmt, 3150), (sym_case_stmt, 3150), (sym_for_stmt, 3150),
     (sym_while_stmt, 3150), (sym_repeat_stmt, 3150), (sym_raise_stmt, 3150), (sym_try_stmt, 3150),
     (sym_ERR_clause_outside_try, 3150), (sym_begin_path_expression, 2943), (sym_invocation, 2934),
     (sym_any_invocation, 2935), (sym_this_invocation, 2641), (sym_super_invocation, 2641),
     (sym_super_body_invocation, 2935), (sym_path_expression, 2627), (sym_field_expression, 2373),
     (sym_index_expression, 2373), (sym_ladder_diagram, 7970), (sym_fb_diagram, 7970),
     (aux_sym_ERR_fb_variables_after_method_repeat1, 2343), (aux_sym_func_decl_repeat1, 7194),
     (aux_sym_fb_decl_repeat3, 2549), (aux_sym_SFC_repeat1, 7612),
     (aux_sym_stmt_list_repeat1, 2024), (aux_sym_ladder_diagram_repeat1, 8009),
     (aux_sym_fb_diagram_repeat1, 8013), (sym_identifier, 298),
     (aux_sym_ERR_unexpected_this_in_path_token1, 304),
     (aux_sym_ERR_unexpected_super_in_path_token1, 306), (sym_line_comment, 3),
     (anon_sym_LBRACE, 308), (aux_sym_test_pragma_token1, 9), (aux_sym_once_pragma_token1, 11),
     (aux_sym_must_call_pragma_token1, 13), (aux_sym_export_pragma_token1, 15),
     (anon_sym_SEMI, 310), (anon_sym_PERCENT, 312), (aux_sym_input_decls_token1, 314),
     (aux_sym_output_decls_token1, 316), (aux_sym_in_out_decls_token1, 318),
     (aux_sym_var_decls_token1, 320), (aux_sym_temp_var_decls_token1, 322),
     (aux_sym_external_var_decls_token1, 324), (aux_sym_global_var_decls_token1, 326),
     (aux_sym_fb_decl_token4, 1998), (aux_sym_method_decl_token1, 330),
     (aux_sym_prog_access_decls_token1, 332), (aux_sym_initial_step_token1, 334),
     (aux_sym_config_init_token1, 336), (aux_sym__stmt_token1, 340), (aux_sym__stmt_token2, 340),
     (aux_sym__stmt_token3, 340), (aux_sym_if_stmt_token1, 342), (aux_sym_case_stmt_token1, 344),
     (aux_sym_for_stmt_token1, 346), (aux_sym_while_stmt_token1, 348),
     (aux_sym_repeat_stmt_token1, 350), (aux_sym_raise_stmt_token1, 352),
     (aux_sym_try_stmt_token1, 354), (aux_sym_try_stmt_token2, 356),
     (aux_sym_catch_clause_token1, 356), (aux_sym_finally_clause_token1, 356), (sym_ld_rung, 358),
     (sym_fbd_network, 360), (sym_c_style_comment, 3), (sym_pascal_style_comment, 3),
     (sym_pragma, 3)]"

lemma ts_parse_row_834_scan: "row_scan tokens_63_2 0 ts_parse_row_834 = Some (Suc (Suc (Suc (Suc 0))))"
  unfolding ts_parse_row_834_def by simp

text \<open>Lines 149564 to 149676.\<close>

definition ts_parse_row_835 :: parse_row where
  "ts_parse_row_835 =
    [(sym_ERR_assign_func_call, 7530), (sym_ERR_unexpected_this_in_path, 2372),
     (sym_ERR_unexpected_super_in_path, 2372), (sym_ERR_fb_variables_after_method, 1838),
     (sym_ERR_var_access_not_allowed, 3160), (sym_ERR_var_config_not_allowed, 3160),
     (sym_ERR_var_global_not_allowed, 3160), (sym_ERR_method_decl_in_body, 3150),
     (sym_extern_pragma, 7490), (sym_wasm_pragma, 3150), (sym_warn_pragma, 7490),
     (sym_allow_pragma, 3140), (sym_test_pragma, 7490), (sym_once_pragma, 7490),
     (sym_must_call_pragma, 7490), (sym_export_pragma, 7490), (sym_pou_pragma, 7194),
     (sym_direct_variable, 7675), (sym_deref_expression, 2373), (sym_variable, 7599),
     (sym_var_access, 2373), (sym_in_out_decls, 3160), (sym_var_decls, 3160),
     (sym_retain_var_decls, 3160), (sym_temp_var_decls, 3160), (sym_external_var_decls, 3160),
     (sym_global_var_decls, 2947), (sym_loc_partly_var_decl, 3160), (sym__fb_variables, 2343),
     (sym_fb_input_decls, 3160), (sym_fb_output_decls, 3160), (sym_no_retain_var_decls, 3160),
     (sym_fb_body, 8956), (sym_method_decl, 2549), (sym_prog_access_decls, 3043), (sym_SFC, 7970),
     (sym_SFC_network, 7612), (sym_initial_step, 7439), (sym_config_init, 3047),
     (sym_variable_access, 7530), (sym_func_call, 2961), (sym_stmt_list, 7970), (sym__stmt, 2024),
     (sym_assign, 3150), (sym_if_stmt, 3150), (sym_case_stmt, 3150), (sym_for_stmt, 3150),
     (sym_while_stmt, 3150), (sym_repeat_stmt, 3150), (sym_raise_stmt, 3150), (sym_try_stmt, 3150),
     (sym_ERR_clause_outside_try, 3150), (sym_begin_path_expression, 2943), (sym_invocation, 2934),
     (sym_any_invocation, 2935), (sym_this_invocation, 2641), (sym_super_invocation, 2641),
     (sym_super_body_invocation, 2935), (sym_path_expression, 2627), (sym_field_expression, 2373),
     (sym_index_expression, 2373), (sym_ladder_diagram, 7970), (sym_fb_diagram, 7970),
     (aux_sym_ERR_fb_variables_after_method_repeat1, 2343), (aux_sym_func_decl_repeat1, 7194),
     (aux_sym_fb_decl_repeat3, 2549), (aux_sym_SFC_repeat1, 7612),
     (aux_sym_stmt_list_repeat1, 2024), (aux_sym_ladder_diagram_repeat1, 8009),
     (aux_sym_fb_diagram_repeat1, 8013), (sym_identifier, 298),
     (aux_sym_ERR_unexpected_this_in_path_token1, 304),
     (aux_sym_ERR_unexpected_super_in_path_token1, 306), (sym_line_comment, 3),
     (anon_sym_LBRACE, 308), (aux_sym_test_pragma_token1, 9), (aux_sym_once_pragma_token1, 11),
     (aux_sym_must_call_pragma_token1, 13), (aux_sym_export_pragma_token1, 15),
     (anon_sym_SEMI, 310), (anon_sym_PERCENT, 312), (aux_sym_input_decls_token1, 314),
     (aux_sym_output_decls_token1, 316), (aux_sym_in_out_decls_token1, 318),
     (aux_sym_var_decls_token1, 320), (aux_sym_temp_var_decls_token1, 322),
     (aux_sym_external_var_decls_token1, 324), (aux_sym_global_var_decls_token1, 326),
     (aux_sym_fb_decl_token4, 2000), (aux_sym_method_decl_token1, 330),
     (aux_sym_prog_access_decls_token1, 332), (aux_sym_initial_step_token1, 334),
     (aux_sym_config_init_token1, 336), (aux_sym__stmt_token1, 340), (aux_sym__stmt_token2, 340),
     (aux_sym__stmt_token3, 340), (aux_sym_if_stmt_token1, 342), (aux_sym_case_stmt_token1, 344),
     (aux_sym_for_stmt_token1, 346), (aux_sym_while_stmt_token1, 348),
     (aux_sym_repeat_stmt_token1, 350), (aux_sym_raise_stmt_token1, 352),
     (aux_sym_try_stmt_token1, 354), (aux_sym_try_stmt_token2, 356),
     (aux_sym_catch_clause_token1, 356), (aux_sym_finally_clause_token1, 356), (sym_ld_rung, 358),
     (sym_fbd_network, 360), (sym_c_style_comment, 3), (sym_pascal_style_comment, 3),
     (sym_pragma, 3)]"

lemma ts_parse_row_835_scan: "row_scan tokens_63_2 0 ts_parse_row_835 = Some (Suc (Suc (Suc (Suc 0))))"
  unfolding ts_parse_row_835_def by simp

text \<open>Lines 149677 to 149789.\<close>

definition ts_parse_row_836 :: parse_row where
  "ts_parse_row_836 =
    [(sym_ERR_assign_func_call, 7530), (sym_ERR_unexpected_this_in_path, 2372),
     (sym_ERR_unexpected_super_in_path, 2372), (sym_ERR_fb_variables_after_method, 1839),
     (sym_ERR_var_access_not_allowed, 3160), (sym_ERR_var_config_not_allowed, 3160),
     (sym_ERR_var_global_not_allowed, 3160), (sym_ERR_method_decl_in_body, 3150),
     (sym_extern_pragma, 7490), (sym_wasm_pragma, 3150), (sym_warn_pragma, 7490),
     (sym_allow_pragma, 3140), (sym_test_pragma, 7490), (sym_once_pragma, 7490),
     (sym_must_call_pragma, 7490), (sym_export_pragma, 7490), (sym_pou_pragma, 7194),
     (sym_direct_variable, 7675), (sym_deref_expression, 2373), (sym_variable, 7599),
     (sym_var_access, 2373), (sym_in_out_decls, 3160), (sym_var_decls, 3160),
     (sym_retain_var_decls, 3160), (sym_temp_var_decls, 3160), (sym_external_var_decls, 3160),
     (sym_global_var_decls, 2947), (sym_loc_partly_var_decl, 3160), (sym__fb_variables, 2343),
     (sym_fb_input_decls, 3160), (sym_fb_output_decls, 3160), (sym_no_retain_var_decls, 3160),
     (sym_fb_body, 8966), (sym_method_decl, 2549), (sym_prog_access_decls, 3043), (sym_SFC, 7970),
     (sym_SFC_network, 7612), (sym_initial_step, 7439), (sym_config_init, 3047),
     (sym_variable_access, 7530), (sym_func_call, 2961), (sym_stmt_list, 7970), (sym__stmt, 2024),
     (sym_assign, 3150), (sym_if_stmt, 3150), (sym_case_stmt, 3150), (sym_for_stmt, 3150),
     (sym_while_stmt, 3150), (sym_repeat_stmt, 3150), (sym_raise_stmt, 3150), (sym_try_stmt, 3150),
     (sym_ERR_clause_outside_try, 3150), (sym_begin_path_expression, 2943), (sym_invocation, 2934),
     (sym_any_invocation, 2935), (sym_this_invocation, 2641), (sym_super_invocation, 2641),
     (sym_super_body_invocation, 2935), (sym_path_expression, 2627), (sym_field_expression, 2373),
     (sym_index_expression, 2373), (sym_ladder_diagram, 7970), (sym_fb_diagram, 7970),
     (aux_sym_ERR_fb_variables_after_method_repeat1, 2343), (aux_sym_func_decl_repeat1, 7194),
     (aux_sym_fb_decl_repeat3, 2549), (aux_sym_SFC_repeat1, 7612),
     (aux_sym_stmt_list_repeat1, 2024), (aux_sym_ladder_diagram_repeat1, 8009),
     (aux_sym_fb_diagram_repeat1, 8013), (sym_identifier, 298),
     (aux_sym_ERR_unexpected_this_in_path_token1, 304),
     (aux_sym_ERR_unexpected_super_in_path_token1, 306), (sym_line_comment, 3),
     (anon_sym_LBRACE, 308), (aux_sym_test_pragma_token1, 9), (aux_sym_once_pragma_token1, 11),
     (aux_sym_must_call_pragma_token1, 13), (aux_sym_export_pragma_token1, 15),
     (anon_sym_SEMI, 310), (anon_sym_PERCENT, 312), (aux_sym_input_decls_token1, 314),
     (aux_sym_output_decls_token1, 316), (aux_sym_in_out_decls_token1, 318),
     (aux_sym_var_decls_token1, 320), (aux_sym_temp_var_decls_token1, 322),
     (aux_sym_external_var_decls_token1, 324), (aux_sym_global_var_decls_token1, 326),
     (aux_sym_fb_decl_token4, 2002), (aux_sym_method_decl_token1, 330),
     (aux_sym_prog_access_decls_token1, 332), (aux_sym_initial_step_token1, 334),
     (aux_sym_config_init_token1, 336), (aux_sym__stmt_token1, 340), (aux_sym__stmt_token2, 340),
     (aux_sym__stmt_token3, 340), (aux_sym_if_stmt_token1, 342), (aux_sym_case_stmt_token1, 344),
     (aux_sym_for_stmt_token1, 346), (aux_sym_while_stmt_token1, 348),
     (aux_sym_repeat_stmt_token1, 350), (aux_sym_raise_stmt_token1, 352),
     (aux_sym_try_stmt_token1, 354), (aux_sym_try_stmt_token2, 356),
     (aux_sym_catch_clause_token1, 356), (aux_sym_finally_clause_token1, 356), (sym_ld_rung, 358),
     (sym_fbd_network, 360), (sym_c_style_comment, 3), (sym_pascal_style_comment, 3),
     (sym_pragma, 3)]"

lemma ts_parse_row_836_scan: "row_scan tokens_63_2 0 ts_parse_row_836 = Some (Suc (Suc (Suc (Suc 0))))"
  unfolding ts_parse_row_836_def by simp

text \<open>Lines 149790 to 149902.\<close>

definition ts_parse_row_837 :: parse_row where
  "ts_parse_row_837 =
    [(sym_ERR_assign_func_call, 7530), (sym_ERR_unexpected_this_in_path, 2372),
     (sym_ERR_unexpected_super_in_path, 2372), (sym_ERR_fb_variables_after_method, 1840),
     (sym_ERR_var_access_not_allowed, 3160), (sym_ERR_var_config_not_allowed, 3160),
     (sym_ERR_var_global_not_allowed, 3160), (sym_ERR_method_decl_in_body, 3150),
     (sym_extern_pragma, 7490), (sym_wasm_pragma, 3150), (sym_warn_pragma, 7490),
     (sym_allow_pragma, 3140), (sym_test_pragma, 7490), (sym_once_pragma, 7490),
     (sym_must_call_pragma, 7490), (sym_export_pragma, 7490), (sym_pou_pragma, 7194),
     (sym_direct_variable, 7675), (sym_deref_expression, 2373), (sym_variable, 7599),
     (sym_var_access, 2373), (sym_in_out_decls, 3160), (sym_var_decls, 3160),
     (sym_retain_var_decls, 3160), (sym_temp_var_decls, 3160), (sym_external_var_decls, 3160),
     (sym_global_var_decls, 2947), (sym_loc_partly_var_decl, 3160), (sym__fb_variables, 2347),
     (sym_fb_input_decls, 3160), (sym_fb_output_decls, 3160), (sym_no_retain_var_decls, 3160),
     (sym_fb_body, 8972), (sym_method_decl, 846), (sym_prog_access_decls, 3043), (sym_SFC, 7970),
     (sym_SFC_network, 7612), (sym_initial_step, 7439), (sym_config_init, 3047),
     (sym_variable_access, 7530), (sym_func_call, 2961), (sym_stmt_list, 7970), (sym__stmt, 2024),
     (sym_assign, 3150), (sym_if_stmt, 3150), (sym_case_stmt, 3150), (sym_for_stmt, 3150),
     (sym_while_stmt, 3150), (sym_repeat_stmt, 3150), (sym_raise_stmt, 3150), (sym_try_stmt, 3150),
     (sym_ERR_clause_outside_try, 3150), (sym_begin_path_expression, 2943), (sym_invocation, 2934),
     (sym_any_invocation, 2935), (sym_this_invocation, 2641), (sym_super_invocation, 2641),
     (sym_super_body_invocation, 2935), (sym_path_expression, 2627), (sym_field_expression, 2373),
     (sym_index_expression, 2373), (sym_ladder_diagram, 7970), (sym_fb_diagram, 7970),
     (aux_sym_ERR_fb_variables_after_method_repeat1, 2347), (aux_sym_func_decl_repeat1, 7194),
     (aux_sym_fb_decl_repeat3, 846), (aux_sym_SFC_repeat1, 7612), (aux_sym_stmt_list_repeat1, 2024),
     (aux_sym_ladder_diagram_repeat1, 8009), (aux_sym_fb_diagram_repeat1, 8013),
     (sym_identifier, 298), (aux_sym_ERR_unexpected_this_in_path_token1, 304),
     (aux_sym_ERR_unexpected_super_in_path_token1, 306), (sym_line_comment, 3),
     (anon_sym_LBRACE, 308), (aux_sym_test_pragma_token1, 9), (aux_sym_once_pragma_token1, 11),
     (aux_sym_must_call_pragma_token1, 13), (aux_sym_export_pragma_token1, 15),
     (anon_sym_SEMI, 310), (anon_sym_PERCENT, 312), (aux_sym_input_decls_token1, 314),
     (aux_sym_output_decls_token1, 316), (aux_sym_in_out_decls_token1, 318),
     (aux_sym_var_decls_token1, 320), (aux_sym_temp_var_decls_token1, 322),
     (aux_sym_external_var_decls_token1, 324), (aux_sym_global_var_decls_token1, 326),
     (aux_sym_fb_decl_token4, 2004), (aux_sym_method_decl_token1, 330),
     (aux_sym_prog_access_decls_token1, 332), (aux_sym_initial_step_token1, 334),
     (aux_sym_config_init_token1, 336), (aux_sym__stmt_token1, 340), (aux_sym__stmt_token2, 340),
     (aux_sym__stmt_token3, 340), (aux_sym_if_stmt_token1, 342), (aux_sym_case_stmt_token1, 344),
     (aux_sym_for_stmt_token1, 346), (aux_sym_while_stmt_token1, 348),
     (aux_sym_repeat_stmt_token1, 350), (aux_sym_raise_stmt_token1, 352),
     (aux_sym_try_stmt_token1, 354), (aux_sym_try_stmt_token2, 356),
     (aux_sym_catch_clause_token1, 356), (aux_sym_finally_clause_token1, 356), (sym_ld_rung, 358),
     (sym_fbd_network, 360), (sym_c_style_comment, 3), (sym_pascal_style_comment, 3),
     (sym_pragma, 3)]"

lemma ts_parse_row_837_scan: "row_scan tokens_63_2 0 ts_parse_row_837 = Some (Suc (Suc (Suc (Suc 0))))"
  unfolding ts_parse_row_837_def by simp

text \<open>Lines 149903 to 150015.\<close>

definition ts_parse_row_838 :: parse_row where
  "ts_parse_row_838 =
    [(sym_ERR_assign_func_call, 7530), (sym_ERR_unexpected_this_in_path, 2372),
     (sym_ERR_unexpected_super_in_path, 2372), (sym_ERR_fb_variables_after_method, 1842),
     (sym_ERR_var_access_not_allowed, 3160), (sym_ERR_var_config_not_allowed, 3160),
     (sym_ERR_var_global_not_allowed, 3160), (sym_ERR_method_decl_in_body, 3150),
     (sym_extern_pragma, 7490), (sym_wasm_pragma, 3150), (sym_warn_pragma, 7490),
     (sym_allow_pragma, 3140), (sym_test_pragma, 7490), (sym_once_pragma, 7490),
     (sym_must_call_pragma, 7490), (sym_export_pragma, 7490), (sym_pou_pragma, 7194),
     (sym_direct_variable, 7675), (sym_deref_expression, 2373), (sym_variable, 7599),
     (sym_var_access, 2373), (sym_in_out_decls, 3160), (sym_var_decls, 3160),
     (sym_retain_var_decls, 3160), (sym_temp_var_decls, 3160), (sym_external_var_decls, 3160),
     (sym_global_var_decls, 2947), (sym_loc_partly_var_decl, 3160), (sym__fb_variables, 2343),
     (sym_fb_input_decls, 3160), (sym_fb_output_decls, 3160), (sym_no_retain_var_decls, 3160),
     (sym_fb_body, 8976), (sym_method_decl, 2549), (sym_prog_access_decls, 3043), (sym_SFC, 7970),
     (sym_SFC_network, 7612), (sym_initial_step, 7439), (sym_config_init, 3047),
     (sym_variable_access, 7530), (sym_func_call, 2961), (sym_stmt_list, 7970), (sym__stmt, 2024),
     (sym_assign, 3150), (sym_if_stmt, 3150), (sym_case_stmt, 3150), (sym_for_stmt, 3150),
     (sym_while_stmt, 3150), (sym_repeat_stmt, 3150), (sym_raise_stmt, 3150), (sym_try_stmt, 3150),
     (sym_ERR_clause_outside_try, 3150), (sym_begin_path_expression, 2943), (sym_invocation, 2934),
     (sym_any_invocation, 2935), (sym_this_invocation, 2641), (sym_super_invocation, 2641),
     (sym_super_body_invocation, 2935), (sym_path_expression, 2627), (sym_field_expression, 2373),
     (sym_index_expression, 2373), (sym_ladder_diagram, 7970), (sym_fb_diagram, 7970),
     (aux_sym_ERR_fb_variables_after_method_repeat1, 2343), (aux_sym_func_decl_repeat1, 7194),
     (aux_sym_fb_decl_repeat3, 2549), (aux_sym_SFC_repeat1, 7612),
     (aux_sym_stmt_list_repeat1, 2024), (aux_sym_ladder_diagram_repeat1, 8009),
     (aux_sym_fb_diagram_repeat1, 8013), (sym_identifier, 298),
     (aux_sym_ERR_unexpected_this_in_path_token1, 304),
     (aux_sym_ERR_unexpected_super_in_path_token1, 306), (sym_line_comment, 3),
     (anon_sym_LBRACE, 308), (aux_sym_test_pragma_token1, 9), (aux_sym_once_pragma_token1, 11),
     (aux_sym_must_call_pragma_token1, 13), (aux_sym_export_pragma_token1, 15),
     (anon_sym_SEMI, 310), (anon_sym_PERCENT, 312), (aux_sym_input_decls_token1, 314),
     (aux_sym_output_decls_token1, 316), (aux_sym_in_out_decls_token1, 318),
     (aux_sym_var_decls_token1, 320), (aux_sym_temp_var_decls_token1, 322),
     (aux_sym_external_var_decls_token1, 324), (aux_sym_global_var_decls_token1, 326),
     (aux_sym_fb_decl_token4, 2006), (aux_sym_method_decl_token1, 330),
     (aux_sym_prog_access_decls_token1, 332), (aux_sym_initial_step_token1, 334),
     (aux_sym_config_init_token1, 336), (aux_sym__stmt_token1, 340), (aux_sym__stmt_token2, 340),
     (aux_sym__stmt_token3, 340), (aux_sym_if_stmt_token1, 342), (aux_sym_case_stmt_token1, 344),
     (aux_sym_for_stmt_token1, 346), (aux_sym_while_stmt_token1, 348),
     (aux_sym_repeat_stmt_token1, 350), (aux_sym_raise_stmt_token1, 352),
     (aux_sym_try_stmt_token1, 354), (aux_sym_try_stmt_token2, 356),
     (aux_sym_catch_clause_token1, 356), (aux_sym_finally_clause_token1, 356), (sym_ld_rung, 358),
     (sym_fbd_network, 360), (sym_c_style_comment, 3), (sym_pascal_style_comment, 3),
     (sym_pragma, 3)]"

lemma ts_parse_row_838_scan: "row_scan tokens_63_2 0 ts_parse_row_838 = Some (Suc (Suc (Suc (Suc 0))))"
  unfolding ts_parse_row_838_def by simp

text \<open>Lines 150016 to 150128.\<close>

definition ts_parse_row_839 :: parse_row where
  "ts_parse_row_839 =
    [(sym_ERR_assign_func_call, 7530), (sym_ERR_unexpected_this_in_path, 2372),
     (sym_ERR_unexpected_super_in_path, 2372), (sym_ERR_fb_variables_after_method, 1843),
     (sym_ERR_var_access_not_allowed, 3160), (sym_ERR_var_config_not_allowed, 3160),
     (sym_ERR_var_global_not_allowed, 3160), (sym_ERR_method_decl_in_body, 3150),
     (sym_extern_pragma, 7490), (sym_wasm_pragma, 3150), (sym_warn_pragma, 7490),
     (sym_allow_pragma, 3140), (sym_test_pragma, 7490), (sym_once_pragma, 7490),
     (sym_must_call_pragma, 7490), (sym_export_pragma, 7490), (sym_pou_pragma, 7194),
     (sym_direct_variable, 7675), (sym_deref_expression, 2373), (sym_variable, 7599),
     (sym_var_access, 2373), (sym_in_out_decls, 3160), (sym_var_decls, 3160),
     (sym_retain_var_decls, 3160), (sym_temp_var_decls, 3160), (sym_external_var_decls, 3160),
     (sym_global_var_decls, 2947), (sym_loc_partly_var_decl, 3160), (sym__fb_variables, 2343),
     (sym_fb_input_decls, 3160), (sym_fb_output_decls, 3160), (sym_no_retain_var_decls, 3160),
     (sym_fb_body, 9026), (sym_method_decl, 2549), (sym_prog_access_decls, 3043), (sym_SFC, 7970),
     (sym_SFC_network, 7612), (sym_initial_step, 7439), (sym_config_init, 3047),
     (sym_variable_access, 7530), (sym_func_call, 2961), (sym_stmt_list, 7970), (sym__stmt, 2024),
     (sym_assign, 3150), (sym_if_stmt, 3150), (sym_case_stmt, 3150), (sym_for_stmt, 3150),
     (sym_while_stmt, 3150), (sym_repeat_stmt, 3150), (sym_raise_stmt, 3150), (sym_try_stmt, 3150),
     (sym_ERR_clause_outside_try, 3150), (sym_begin_path_expression, 2943), (sym_invocation, 2934),
     (sym_any_invocation, 2935), (sym_this_invocation, 2641), (sym_super_invocation, 2641),
     (sym_super_body_invocation, 2935), (sym_path_expression, 2627), (sym_field_expression, 2373),
     (sym_index_expression, 2373), (sym_ladder_diagram, 7970), (sym_fb_diagram, 7970),
     (aux_sym_ERR_fb_variables_after_method_repeat1, 2343), (aux_sym_func_decl_repeat1, 7194),
     (aux_sym_fb_decl_repeat3, 2549), (aux_sym_SFC_repeat1, 7612),
     (aux_sym_stmt_list_repeat1, 2024), (aux_sym_ladder_diagram_repeat1, 8009),
     (aux_sym_fb_diagram_repeat1, 8013), (sym_identifier, 298),
     (aux_sym_ERR_unexpected_this_in_path_token1, 304),
     (aux_sym_ERR_unexpected_super_in_path_token1, 306), (sym_line_comment, 3),
     (anon_sym_LBRACE, 308), (aux_sym_test_pragma_token1, 9), (aux_sym_once_pragma_token1, 11),
     (aux_sym_must_call_pragma_token1, 13), (aux_sym_export_pragma_token1, 15),
     (anon_sym_SEMI, 310), (anon_sym_PERCENT, 312), (aux_sym_input_decls_token1, 314),
     (aux_sym_output_decls_token1, 316), (aux_sym_in_out_decls_token1, 318),
     (aux_sym_var_decls_token1, 320), (aux_sym_temp_var_decls_token1, 322),
     (aux_sym_external_var_decls_token1, 324), (aux_sym_global_var_decls_token1, 326),
     (aux_sym_fb_decl_token4, 2008), (aux_sym_method_decl_token1, 330),
     (aux_sym_prog_access_decls_token1, 332), (aux_sym_initial_step_token1, 334),
     (aux_sym_config_init_token1, 336), (aux_sym__stmt_token1, 340), (aux_sym__stmt_token2, 340),
     (aux_sym__stmt_token3, 340), (aux_sym_if_stmt_token1, 342), (aux_sym_case_stmt_token1, 344),
     (aux_sym_for_stmt_token1, 346), (aux_sym_while_stmt_token1, 348),
     (aux_sym_repeat_stmt_token1, 350), (aux_sym_raise_stmt_token1, 352),
     (aux_sym_try_stmt_token1, 354), (aux_sym_try_stmt_token2, 356),
     (aux_sym_catch_clause_token1, 356), (aux_sym_finally_clause_token1, 356), (sym_ld_rung, 358),
     (sym_fbd_network, 360), (sym_c_style_comment, 3), (sym_pascal_style_comment, 3),
     (sym_pragma, 3)]"

lemma ts_parse_row_839_scan: "row_scan tokens_63_2 0 ts_parse_row_839 = Some (Suc (Suc (Suc (Suc 0))))"
  unfolding ts_parse_row_839_def by simp

text \<open>Lines 150129 to 150241.\<close>

definition ts_parse_row_840 :: parse_row where
  "ts_parse_row_840 =
    [(sym_ERR_assign_func_call, 7530), (sym_ERR_unexpected_this_in_path, 2372),
     (sym_ERR_unexpected_super_in_path, 2372), (sym_ERR_fb_variables_after_method, 1844),
     (sym_ERR_var_access_not_allowed, 3160), (sym_ERR_var_config_not_allowed, 3160),
     (sym_ERR_var_global_not_allowed, 3160), (sym_ERR_method_decl_in_body, 3150),
     (sym_extern_pragma, 7490), (sym_wasm_pragma, 3150), (sym_warn_pragma, 7490),
     (sym_allow_pragma, 3140), (sym_test_pragma, 7490), (sym_once_pragma, 7490),
     (sym_must_call_pragma, 7490), (sym_export_pragma, 7490), (sym_pou_pragma, 7194),
     (sym_direct_variable, 7675), (sym_deref_expression, 2373), (sym_variable, 7599),
     (sym_var_access, 2373), (sym_in_out_decls, 3160), (sym_var_decls, 3160),
     (sym_retain_var_decls, 3160), (sym_temp_var_decls, 3160), (sym_external_var_decls, 3160),
     (sym_global_var_decls, 2947), (sym_loc_partly_var_decl, 3160), (sym__fb_variables, 2343),
     (sym_fb_input_decls, 3160), (sym_fb_output_decls, 3160), (sym_no_retain_var_decls, 3160),
     (sym_fb_body, 9086), (sym_method_decl, 2549), (sym_prog_access_decls, 3043), (sym_SFC, 7970),
     (sym_SFC_network, 7612), (sym_initial_step, 7439), (sym_config_init, 3047),
     (sym_variable_access, 7530), (sym_func_call, 2961), (sym_stmt_list, 7970), (sym__stmt, 2024),
     (sym_assign, 3150), (sym_if_stmt, 3150), (sym_case_stmt, 3150), (sym_for_stmt, 3150),
     (sym_while_stmt, 3150), (sym_repeat_stmt, 3150), (sym_raise_stmt, 3150), (sym_try_stmt, 3150),
     (sym_ERR_clause_outside_try, 3150), (sym_begin_path_expression, 2943), (sym_invocation, 2934),
     (sym_any_invocation, 2935), (sym_this_invocation, 2641), (sym_super_invocation, 2641),
     (sym_super_body_invocation, 2935), (sym_path_expression, 2627), (sym_field_expression, 2373),
     (sym_index_expression, 2373), (sym_ladder_diagram, 7970), (sym_fb_diagram, 7970),
     (aux_sym_ERR_fb_variables_after_method_repeat1, 2343), (aux_sym_func_decl_repeat1, 7194),
     (aux_sym_fb_decl_repeat3, 2549), (aux_sym_SFC_repeat1, 7612),
     (aux_sym_stmt_list_repeat1, 2024), (aux_sym_ladder_diagram_repeat1, 8009),
     (aux_sym_fb_diagram_repeat1, 8013), (sym_identifier, 298),
     (aux_sym_ERR_unexpected_this_in_path_token1, 304),
     (aux_sym_ERR_unexpected_super_in_path_token1, 306), (sym_line_comment, 3),
     (anon_sym_LBRACE, 308), (aux_sym_test_pragma_token1, 9), (aux_sym_once_pragma_token1, 11),
     (aux_sym_must_call_pragma_token1, 13), (aux_sym_export_pragma_token1, 15),
     (anon_sym_SEMI, 310), (anon_sym_PERCENT, 312), (aux_sym_input_decls_token1, 314),
     (aux_sym_output_decls_token1, 316), (aux_sym_in_out_decls_token1, 318),
     (aux_sym_var_decls_token1, 320), (aux_sym_temp_var_decls_token1, 322),
     (aux_sym_external_var_decls_token1, 324), (aux_sym_global_var_decls_token1, 326),
     (aux_sym_fb_decl_token4, 2010), (aux_sym_method_decl_token1, 330),
     (aux_sym_prog_access_decls_token1, 332), (aux_sym_initial_step_token1, 334),
     (aux_sym_config_init_token1, 336), (aux_sym__stmt_token1, 340), (aux_sym__stmt_token2, 340),
     (aux_sym__stmt_token3, 340), (aux_sym_if_stmt_token1, 342), (aux_sym_case_stmt_token1, 344),
     (aux_sym_for_stmt_token1, 346), (aux_sym_while_stmt_token1, 348),
     (aux_sym_repeat_stmt_token1, 350), (aux_sym_raise_stmt_token1, 352),
     (aux_sym_try_stmt_token1, 354), (aux_sym_try_stmt_token2, 356),
     (aux_sym_catch_clause_token1, 356), (aux_sym_finally_clause_token1, 356), (sym_ld_rung, 358),
     (sym_fbd_network, 360), (sym_c_style_comment, 3), (sym_pascal_style_comment, 3),
     (sym_pragma, 3)]"

lemma ts_parse_row_840_scan: "row_scan tokens_63_2 0 ts_parse_row_840 = Some (Suc (Suc (Suc (Suc 0))))"
  unfolding ts_parse_row_840_def by simp

text \<open>Lines 150242 to 150354.\<close>

definition ts_parse_row_841 :: parse_row where
  "ts_parse_row_841 =
    [(sym_ERR_assign_func_call, 7530), (sym_ERR_unexpected_this_in_path, 2372),
     (sym_ERR_unexpected_super_in_path, 2372), (sym_ERR_fb_variables_after_method, 1845),
     (sym_ERR_var_access_not_allowed, 3160), (sym_ERR_var_config_not_allowed, 3160),
     (sym_ERR_var_global_not_allowed, 3160), (sym_ERR_method_decl_in_body, 3150),
     (sym_extern_pragma, 7490), (sym_wasm_pragma, 3150), (sym_warn_pragma, 7490),
     (sym_allow_pragma, 3140), (sym_test_pragma, 7490), (sym_once_pragma, 7490),
     (sym_must_call_pragma, 7490), (sym_export_pragma, 7490), (sym_pou_pragma, 7194),
     (sym_direct_variable, 7675), (sym_deref_expression, 2373), (sym_variable, 7599),
     (sym_var_access, 2373), (sym_in_out_decls, 3160), (sym_var_decls, 3160),
     (sym_retain_var_decls, 3160), (sym_temp_var_decls, 3160), (sym_external_var_decls, 3160),
     (sym_global_var_decls, 2947), (sym_loc_partly_var_decl, 3160), (sym__fb_variables, 2343),
     (sym_fb_input_decls, 3160), (sym_fb_output_decls, 3160), (sym_no_retain_var_decls, 3160),
     (sym_fb_body, 9109), (sym_method_decl, 2549), (sym_prog_access_decls, 3043), (sym_SFC, 7970),
     (sym_SFC_network, 7612), (sym_initial_step, 7439), (sym_config_init, 3047),
     (sym_variable_access, 7530), (sym_func_call, 2961), (sym_stmt_list, 7970), (sym__stmt, 2024),
     (sym_assign, 3150), (sym_if_stmt, 3150), (sym_case_stmt, 3150), (sym_for_stmt, 3150),
     (sym_while_stmt, 3150), (sym_repeat_stmt, 3150), (sym_raise_stmt, 3150), (sym_try_stmt, 3150),
     (sym_ERR_clause_outside_try, 3150), (sym_begin_path_expression, 2943), (sym_invocation, 2934),
     (sym_any_invocation, 2935), (sym_this_invocation, 2641), (sym_super_invocation, 2641),
     (sym_super_body_invocation, 2935), (sym_path_expression, 2627), (sym_field_expression, 2373),
     (sym_index_expression, 2373), (sym_ladder_diagram, 7970), (sym_fb_diagram, 7970),
     (aux_sym_ERR_fb_variables_after_method_repeat1, 2343), (aux_sym_func_decl_repeat1, 7194),
     (aux_sym_fb_decl_repeat3, 2549), (aux_sym_SFC_repeat1, 7612),
     (aux_sym_stmt_list_repeat1, 2024), (aux_sym_ladder_diagram_repeat1, 8009),
     (aux_sym_fb_diagram_repeat1, 8013), (sym_identifier, 298),
     (aux_sym_ERR_unexpected_this_in_path_token1, 304),
     (aux_sym_ERR_unexpected_super_in_path_token1, 306), (sym_line_comment, 3),
     (anon_sym_LBRACE, 308), (aux_sym_test_pragma_token1, 9), (aux_sym_once_pragma_token1, 11),
     (aux_sym_must_call_pragma_token1, 13), (aux_sym_export_pragma_token1, 15),
     (anon_sym_SEMI, 310), (anon_sym_PERCENT, 312), (aux_sym_input_decls_token1, 314),
     (aux_sym_output_decls_token1, 316), (aux_sym_in_out_decls_token1, 318),
     (aux_sym_var_decls_token1, 320), (aux_sym_temp_var_decls_token1, 322),
     (aux_sym_external_var_decls_token1, 324), (aux_sym_global_var_decls_token1, 326),
     (aux_sym_fb_decl_token4, 2012), (aux_sym_method_decl_token1, 330),
     (aux_sym_prog_access_decls_token1, 332), (aux_sym_initial_step_token1, 334),
     (aux_sym_config_init_token1, 336), (aux_sym__stmt_token1, 340), (aux_sym__stmt_token2, 340),
     (aux_sym__stmt_token3, 340), (aux_sym_if_stmt_token1, 342), (aux_sym_case_stmt_token1, 344),
     (aux_sym_for_stmt_token1, 346), (aux_sym_while_stmt_token1, 348),
     (aux_sym_repeat_stmt_token1, 350), (aux_sym_raise_stmt_token1, 352),
     (aux_sym_try_stmt_token1, 354), (aux_sym_try_stmt_token2, 356),
     (aux_sym_catch_clause_token1, 356), (aux_sym_finally_clause_token1, 356), (sym_ld_rung, 358),
     (sym_fbd_network, 360), (sym_c_style_comment, 3), (sym_pascal_style_comment, 3),
     (sym_pragma, 3)]"

lemma ts_parse_row_841_scan: "row_scan tokens_63_2 0 ts_parse_row_841 = Some (Suc (Suc (Suc (Suc 0))))"
  unfolding ts_parse_row_841_def by simp

text \<open>Lines 150355 to 150467.\<close>

definition ts_parse_row_842 :: parse_row where
  "ts_parse_row_842 =
    [(sym_ERR_assign_func_call, 7530), (sym_ERR_unexpected_this_in_path, 2372),
     (sym_ERR_unexpected_super_in_path, 2372), (sym_ERR_fb_variables_after_method, 1846),
     (sym_ERR_var_access_not_allowed, 3160), (sym_ERR_var_config_not_allowed, 3160),
     (sym_ERR_var_global_not_allowed, 3160), (sym_ERR_method_decl_in_body, 3150),
     (sym_extern_pragma, 7490), (sym_wasm_pragma, 3150), (sym_warn_pragma, 7490),
     (sym_allow_pragma, 3140), (sym_test_pragma, 7490), (sym_once_pragma, 7490),
     (sym_must_call_pragma, 7490), (sym_export_pragma, 7490), (sym_pou_pragma, 7194),
     (sym_direct_variable, 7675), (sym_deref_expression, 2373), (sym_variable, 7599),
     (sym_var_access, 2373), (sym_in_out_decls, 3160), (sym_var_decls, 3160),
     (sym_retain_var_decls, 3160), (sym_temp_var_decls, 3160), (sym_external_var_decls, 3160),
     (sym_global_var_decls, 2947), (sym_loc_partly_var_decl, 3160), (sym__fb_variables, 2343),
     (sym_fb_input_decls, 3160), (sym_fb_output_decls, 3160), (sym_no_retain_var_decls, 3160),
     (sym_fb_body, 9124), (sym_method_decl, 2549), (sym_prog_access_decls, 3043), (sym_SFC, 7970),
     (sym_SFC_network, 7612), (sym_initial_step, 7439), (sym_config_init, 3047),
     (sym_variable_access, 7530), (sym_func_call, 2961), (sym_stmt_list, 7970), (sym__stmt, 2024),
     (sym_assign, 3150), (sym_if_stmt, 3150), (sym_case_stmt, 3150), (sym_for_stmt, 3150),
     (sym_while_stmt, 3150), (sym_repeat_stmt, 3150), (sym_raise_stmt, 3150), (sym_try_stmt, 3150),
     (sym_ERR_clause_outside_try, 3150), (sym_begin_path_expression, 2943), (sym_invocation, 2934),
     (sym_any_invocation, 2935), (sym_this_invocation, 2641), (sym_super_invocation, 2641),
     (sym_super_body_invocation, 2935), (sym_path_expression, 2627), (sym_field_expression, 2373),
     (sym_index_expression, 2373), (sym_ladder_diagram, 7970), (sym_fb_diagram, 7970),
     (aux_sym_ERR_fb_variables_after_method_repeat1, 2343), (aux_sym_func_decl_repeat1, 7194),
     (aux_sym_fb_decl_repeat3, 2549), (aux_sym_SFC_repeat1, 7612),
     (aux_sym_stmt_list_repeat1, 2024), (aux_sym_ladder_diagram_repeat1, 8009),
     (aux_sym_fb_diagram_repeat1, 8013), (sym_identifier, 298),
     (aux_sym_ERR_unexpected_this_in_path_token1, 304),
     (aux_sym_ERR_unexpected_super_in_path_token1, 306), (sym_line_comment, 3),
     (anon_sym_LBRACE, 308), (aux_sym_test_pragma_token1, 9), (aux_sym_once_pragma_token1, 11),
     (aux_sym_must_call_pragma_token1, 13), (aux_sym_export_pragma_token1, 15),
     (anon_sym_SEMI, 310), (anon_sym_PERCENT, 312), (aux_sym_input_decls_token1, 314),
     (aux_sym_output_decls_token1, 316), (aux_sym_in_out_decls_token1, 318),
     (aux_sym_var_decls_token1, 320), (aux_sym_temp_var_decls_token1, 322),
     (aux_sym_external_var_decls_token1, 324), (aux_sym_global_var_decls_token1, 326),
     (aux_sym_fb_decl_token4, 2014), (aux_sym_method_decl_token1, 330),
     (aux_sym_prog_access_decls_token1, 332), (aux_sym_initial_step_token1, 334),
     (aux_sym_config_init_token1, 336), (aux_sym__stmt_token1, 340), (aux_sym__stmt_token2, 340),
     (aux_sym__stmt_token3, 340), (aux_sym_if_stmt_token1, 342), (aux_sym_case_stmt_token1, 344),
     (aux_sym_for_stmt_token1, 346), (aux_sym_while_stmt_token1, 348),
     (aux_sym_repeat_stmt_token1, 350), (aux_sym_raise_stmt_token1, 352),
     (aux_sym_try_stmt_token1, 354), (aux_sym_try_stmt_token2, 356),
     (aux_sym_catch_clause_token1, 356), (aux_sym_finally_clause_token1, 356), (sym_ld_rung, 358),
     (sym_fbd_network, 360), (sym_c_style_comment, 3), (sym_pascal_style_comment, 3),
     (sym_pragma, 3)]"

lemma ts_parse_row_842_scan: "row_scan tokens_63_2 0 ts_parse_row_842 = Some (Suc (Suc (Suc (Suc 0))))"
  unfolding ts_parse_row_842_def by simp

text \<open>Lines 150468 to 150580.\<close>

definition ts_parse_row_843 :: parse_row where
  "ts_parse_row_843 =
    [(sym_ERR_assign_func_call, 7530), (sym_ERR_unexpected_this_in_path, 2372),
     (sym_ERR_unexpected_super_in_path, 2372), (sym_ERR_fb_variables_after_method, 1847),
     (sym_ERR_var_access_not_allowed, 3160), (sym_ERR_var_config_not_allowed, 3160),
     (sym_ERR_var_global_not_allowed, 3160), (sym_ERR_method_decl_in_body, 3150),
     (sym_extern_pragma, 7490), (sym_wasm_pragma, 3150), (sym_warn_pragma, 7490),
     (sym_allow_pragma, 3140), (sym_test_pragma, 7490), (sym_once_pragma, 7490),
     (sym_must_call_pragma, 7490), (sym_export_pragma, 7490), (sym_pou_pragma, 7194),
     (sym_direct_variable, 7675), (sym_deref_expression, 2373), (sym_variable, 7599),
     (sym_var_access, 2373), (sym_in_out_decls, 3160), (sym_var_decls, 3160),
     (sym_retain_var_decls, 3160), (sym_temp_var_decls, 3160), (sym_external_var_decls, 3160),
     (sym_global_var_decls, 2947), (sym_loc_partly_var_decl, 3160), (sym__fb_variables, 2343),
     (sym_fb_input_decls, 3160), (sym_fb_output_decls, 3160), (sym_no_retain_var_decls, 3160),
     (sym_fb_body, 9134), (sym_method_decl, 2549), (sym_prog_access_decls, 3043), (sym_SFC, 7970),
     (sym_SFC_network, 7612), (sym_initial_step, 7439), (sym_config_init, 3047),
     (sym_variable_access, 7530), (sym_func_call, 2961), (sym_stmt_list, 7970), (sym__stmt, 2024),
     (sym_assign, 3150), (sym_if_stmt, 3150), (sym_case_stmt, 3150), (sym_for_stmt, 3150),
     (sym_while_stmt, 3150), (sym_repeat_stmt, 3150), (sym_raise_stmt, 3150), (sym_try_stmt, 3150),
     (sym_ERR_clause_outside_try, 3150), (sym_begin_path_expression, 2943), (sym_invocation, 2934),
     (sym_any_invocation, 2935), (sym_this_invocation, 2641), (sym_super_invocation, 2641),
     (sym_super_body_invocation, 2935), (sym_path_expression, 2627), (sym_field_expression, 2373),
     (sym_index_expression, 2373), (sym_ladder_diagram, 7970), (sym_fb_diagram, 7970),
     (aux_sym_ERR_fb_variables_after_method_repeat1, 2343), (aux_sym_func_decl_repeat1, 7194),
     (aux_sym_fb_decl_repeat3, 2549), (aux_sym_SFC_repeat1, 7612),
     (aux_sym_stmt_list_repeat1, 2024), (aux_sym_ladder_diagram_repeat1, 8009),
     (aux_sym_fb_diagram_repeat1, 8013), (sym_identifier, 298),
     (aux_sym_ERR_unexpected_this_in_path_token1, 304),
     (aux_sym_ERR_unexpected_super_in_path_token1, 306), (sym_line_comment, 3),
     (anon_sym_LBRACE, 308), (aux_sym_test_pragma_token1, 9), (aux_sym_once_pragma_token1, 11),
     (aux_sym_must_call_pragma_token1, 13), (aux_sym_export_pragma_token1, 15),
     (anon_sym_SEMI, 310), (anon_sym_PERCENT, 312), (aux_sym_input_decls_token1, 314),
     (aux_sym_output_decls_token1, 316), (aux_sym_in_out_decls_token1, 318),
     (aux_sym_var_decls_token1, 320), (aux_sym_temp_var_decls_token1, 322),
     (aux_sym_external_var_decls_token1, 324), (aux_sym_global_var_decls_token1, 326),
     (aux_sym_fb_decl_token4, 2016), (aux_sym_method_decl_token1, 330),
     (aux_sym_prog_access_decls_token1, 332), (aux_sym_initial_step_token1, 334),
     (aux_sym_config_init_token1, 336), (aux_sym__stmt_token1, 340), (aux_sym__stmt_token2, 340),
     (aux_sym__stmt_token3, 340), (aux_sym_if_stmt_token1, 342), (aux_sym_case_stmt_token1, 344),
     (aux_sym_for_stmt_token1, 346), (aux_sym_while_stmt_token1, 348),
     (aux_sym_repeat_stmt_token1, 350), (aux_sym_raise_stmt_token1, 352),
     (aux_sym_try_stmt_token1, 354), (aux_sym_try_stmt_token2, 356),
     (aux_sym_catch_clause_token1, 356), (aux_sym_finally_clause_token1, 356), (sym_ld_rung, 358),
     (sym_fbd_network, 360), (sym_c_style_comment, 3), (sym_pascal_style_comment, 3),
     (sym_pragma, 3)]"

lemma ts_parse_row_843_scan: "row_scan tokens_63_2 0 ts_parse_row_843 = Some (Suc (Suc (Suc (Suc 0))))"
  unfolding ts_parse_row_843_def by simp

text \<open>Lines 150581 to 150693.\<close>

definition ts_parse_row_844 :: parse_row where
  "ts_parse_row_844 =
    [(sym_ERR_assign_func_call, 7530), (sym_ERR_unexpected_this_in_path, 2372),
     (sym_ERR_unexpected_super_in_path, 2372), (sym_ERR_fb_variables_after_method, 1848),
     (sym_ERR_var_access_not_allowed, 3160), (sym_ERR_var_config_not_allowed, 3160),
     (sym_ERR_var_global_not_allowed, 3160), (sym_ERR_method_decl_in_body, 3150),
     (sym_extern_pragma, 7490), (sym_wasm_pragma, 3150), (sym_warn_pragma, 7490),
     (sym_allow_pragma, 3140), (sym_test_pragma, 7490), (sym_once_pragma, 7490),
     (sym_must_call_pragma, 7490), (sym_export_pragma, 7490), (sym_pou_pragma, 7194),
     (sym_direct_variable, 7675), (sym_deref_expression, 2373), (sym_variable, 7599),
     (sym_var_access, 2373), (sym_in_out_decls, 3160), (sym_var_decls, 3160),
     (sym_retain_var_decls, 3160), (sym_temp_var_decls, 3160), (sym_external_var_decls, 3160),
     (sym_global_var_decls, 2947), (sym_loc_partly_var_decl, 3160), (sym__fb_variables, 2347),
     (sym_fb_input_decls, 3160), (sym_fb_output_decls, 3160), (sym_no_retain_var_decls, 3160),
     (sym_fb_body, 9140), (sym_method_decl, 847), (sym_prog_access_decls, 3043), (sym_SFC, 7970),
     (sym_SFC_network, 7612), (sym_initial_step, 7439), (sym_config_init, 3047),
     (sym_variable_access, 7530), (sym_func_call, 2961), (sym_stmt_list, 7970), (sym__stmt, 2024),
     (sym_assign, 3150), (sym_if_stmt, 3150), (sym_case_stmt, 3150), (sym_for_stmt, 3150),
     (sym_while_stmt, 3150), (sym_repeat_stmt, 3150), (sym_raise_stmt, 3150), (sym_try_stmt, 3150),
     (sym_ERR_clause_outside_try, 3150), (sym_begin_path_expression, 2943), (sym_invocation, 2934),
     (sym_any_invocation, 2935), (sym_this_invocation, 2641), (sym_super_invocation, 2641),
     (sym_super_body_invocation, 2935), (sym_path_expression, 2627), (sym_field_expression, 2373),
     (sym_index_expression, 2373), (sym_ladder_diagram, 7970), (sym_fb_diagram, 7970),
     (aux_sym_ERR_fb_variables_after_method_repeat1, 2347), (aux_sym_func_decl_repeat1, 7194),
     (aux_sym_fb_decl_repeat3, 847), (aux_sym_SFC_repeat1, 7612), (aux_sym_stmt_list_repeat1, 2024),
     (aux_sym_ladder_diagram_repeat1, 8009), (aux_sym_fb_diagram_repeat1, 8013),
     (sym_identifier, 298), (aux_sym_ERR_unexpected_this_in_path_token1, 304),
     (aux_sym_ERR_unexpected_super_in_path_token1, 306), (sym_line_comment, 3),
     (anon_sym_LBRACE, 308), (aux_sym_test_pragma_token1, 9), (aux_sym_once_pragma_token1, 11),
     (aux_sym_must_call_pragma_token1, 13), (aux_sym_export_pragma_token1, 15),
     (anon_sym_SEMI, 310), (anon_sym_PERCENT, 312), (aux_sym_input_decls_token1, 314),
     (aux_sym_output_decls_token1, 316), (aux_sym_in_out_decls_token1, 318),
     (aux_sym_var_decls_token1, 320), (aux_sym_temp_var_decls_token1, 322),
     (aux_sym_external_var_decls_token1, 324), (aux_sym_global_var_decls_token1, 326),
     (aux_sym_fb_decl_token4, 2018), (aux_sym_method_decl_token1, 330),
     (aux_sym_prog_access_decls_token1, 332), (aux_sym_initial_step_token1, 334),
     (aux_sym_config_init_token1, 336), (aux_sym__stmt_token1, 340), (aux_sym__stmt_token2, 340),
     (aux_sym__stmt_token3, 340), (aux_sym_if_stmt_token1, 342), (aux_sym_case_stmt_token1, 344),
     (aux_sym_for_stmt_token1, 346), (aux_sym_while_stmt_token1, 348),
     (aux_sym_repeat_stmt_token1, 350), (aux_sym_raise_stmt_token1, 352),
     (aux_sym_try_stmt_token1, 354), (aux_sym_try_stmt_token2, 356),
     (aux_sym_catch_clause_token1, 356), (aux_sym_finally_clause_token1, 356), (sym_ld_rung, 358),
     (sym_fbd_network, 360), (sym_c_style_comment, 3), (sym_pascal_style_comment, 3),
     (sym_pragma, 3)]"

lemma ts_parse_row_844_scan: "row_scan tokens_63_2 0 ts_parse_row_844 = Some (Suc (Suc (Suc (Suc 0))))"
  unfolding ts_parse_row_844_def by simp

text \<open>Lines 150694 to 150806.\<close>

definition ts_parse_row_845 :: parse_row where
  "ts_parse_row_845 =
    [(sym_ERR_assign_func_call, 7530), (sym_ERR_unexpected_this_in_path, 2372),
     (sym_ERR_unexpected_super_in_path, 2372), (sym_ERR_fb_variables_after_method, 1850),
     (sym_ERR_var_access_not_allowed, 3160), (sym_ERR_var_config_not_allowed, 3160),
     (sym_ERR_var_global_not_allowed, 3160), (sym_ERR_method_decl_in_body, 3150),
     (sym_extern_pragma, 7490), (sym_wasm_pragma, 3150), (sym_warn_pragma, 7490),
     (sym_allow_pragma, 3140), (sym_test_pragma, 7490), (sym_once_pragma, 7490),
     (sym_must_call_pragma, 7490), (sym_export_pragma, 7490), (sym_pou_pragma, 7194),
     (sym_direct_variable, 7675), (sym_deref_expression, 2373), (sym_variable, 7599),
     (sym_var_access, 2373), (sym_in_out_decls, 3160), (sym_var_decls, 3160),
     (sym_retain_var_decls, 3160), (sym_temp_var_decls, 3160), (sym_external_var_decls, 3160),
     (sym_global_var_decls, 2947), (sym_loc_partly_var_decl, 3160), (sym__fb_variables, 2343),
     (sym_fb_input_decls, 3160), (sym_fb_output_decls, 3160), (sym_no_retain_var_decls, 3160),
     (sym_fb_body, 9144), (sym_method_decl, 2549), (sym_prog_access_decls, 3043), (sym_SFC, 7970),
     (sym_SFC_network, 7612), (sym_initial_step, 7439), (sym_config_init, 3047),
     (sym_variable_access, 7530), (sym_func_call, 2961), (sym_stmt_list, 7970), (sym__stmt, 2024),
     (sym_assign, 3150), (sym_if_stmt, 3150), (sym_case_stmt, 3150), (sym_for_stmt, 3150),
     (sym_while_stmt, 3150), (sym_repeat_stmt, 3150), (sym_raise_stmt, 3150), (sym_try_stmt, 3150),
     (sym_ERR_clause_outside_try, 3150), (sym_begin_path_expression, 2943), (sym_invocation, 2934),
     (sym_any_invocation, 2935), (sym_this_invocation, 2641), (sym_super_invocation, 2641),
     (sym_super_body_invocation, 2935), (sym_path_expression, 2627), (sym_field_expression, 2373),
     (sym_index_expression, 2373), (sym_ladder_diagram, 7970), (sym_fb_diagram, 7970),
     (aux_sym_ERR_fb_variables_after_method_repeat1, 2343), (aux_sym_func_decl_repeat1, 7194),
     (aux_sym_fb_decl_repeat3, 2549), (aux_sym_SFC_repeat1, 7612),
     (aux_sym_stmt_list_repeat1, 2024), (aux_sym_ladder_diagram_repeat1, 8009),
     (aux_sym_fb_diagram_repeat1, 8013), (sym_identifier, 298),
     (aux_sym_ERR_unexpected_this_in_path_token1, 304),
     (aux_sym_ERR_unexpected_super_in_path_token1, 306), (sym_line_comment, 3),
     (anon_sym_LBRACE, 308), (aux_sym_test_pragma_token1, 9), (aux_sym_once_pragma_token1, 11),
     (aux_sym_must_call_pragma_token1, 13), (aux_sym_export_pragma_token1, 15),
     (anon_sym_SEMI, 310), (anon_sym_PERCENT, 312), (aux_sym_input_decls_token1, 314),
     (aux_sym_output_decls_token1, 316), (aux_sym_in_out_decls_token1, 318),
     (aux_sym_var_decls_token1, 320), (aux_sym_temp_var_decls_token1, 322),
     (aux_sym_external_var_decls_token1, 324), (aux_sym_global_var_decls_token1, 326),
     (aux_sym_fb_decl_token4, 2020), (aux_sym_method_decl_token1, 330),
     (aux_sym_prog_access_decls_token1, 332), (aux_sym_initial_step_token1, 334),
     (aux_sym_config_init_token1, 336), (aux_sym__stmt_token1, 340), (aux_sym__stmt_token2, 340),
     (aux_sym__stmt_token3, 340), (aux_sym_if_stmt_token1, 342), (aux_sym_case_stmt_token1, 344),
     (aux_sym_for_stmt_token1, 346), (aux_sym_while_stmt_token1, 348),
     (aux_sym_repeat_stmt_token1, 350), (aux_sym_raise_stmt_token1, 352),
     (aux_sym_try_stmt_token1, 354), (aux_sym_try_stmt_token2, 356),
     (aux_sym_catch_clause_token1, 356), (aux_sym_finally_clause_token1, 356), (sym_ld_rung, 358),
     (sym_fbd_network, 360), (sym_c_style_comment, 3), (sym_pascal_style_comment, 3),
     (sym_pragma, 3)]"

lemma ts_parse_row_845_scan: "row_scan tokens_63_2 0 ts_parse_row_845 = Some (Suc (Suc (Suc (Suc 0))))"
  unfolding ts_parse_row_845_def by simp

text \<open>Lines 150807 to 150919.\<close>

definition ts_parse_row_846 :: parse_row where
  "ts_parse_row_846 =
    [(sym_ERR_assign_func_call, 7530), (sym_ERR_unexpected_this_in_path, 2372),
     (sym_ERR_unexpected_super_in_path, 2372), (sym_ERR_fb_variables_after_method, 1851),
     (sym_ERR_var_access_not_allowed, 3160), (sym_ERR_var_config_not_allowed, 3160),
     (sym_ERR_var_global_not_allowed, 3160), (sym_ERR_method_decl_in_body, 3150),
     (sym_extern_pragma, 7490), (sym_wasm_pragma, 3150), (sym_warn_pragma, 7490),
     (sym_allow_pragma, 3140), (sym_test_pragma, 7490), (sym_once_pragma, 7490),
     (sym_must_call_pragma, 7490), (sym_export_pragma, 7490), (sym_pou_pragma, 7194),
     (sym_direct_variable, 7675), (sym_deref_expression, 2373), (sym_variable, 7599),
     (sym_var_access, 2373), (sym_in_out_decls, 3160), (sym_var_decls, 3160),
     (sym_retain_var_decls, 3160), (sym_temp_var_decls, 3160), (sym_external_var_decls, 3160),
     (sym_global_var_decls, 2947), (sym_loc_partly_var_decl, 3160), (sym__fb_variables, 2343),
     (sym_fb_input_decls, 3160), (sym_fb_output_decls, 3160), (sym_no_retain_var_decls, 3160),
     (sym_fb_body, 9194), (sym_method_decl, 2549), (sym_prog_access_decls, 3043), (sym_SFC, 7970),
     (sym_SFC_network, 7612), (sym_initial_step, 7439), (sym_config_init, 3047),
     (sym_variable_access, 7530), (sym_func_call, 2961), (sym_stmt_list, 7970), (sym__stmt, 2024),
     (sym_assign, 3150), (sym_if_stmt, 3150), (sym_case_stmt, 3150), (sym_for_stmt, 3150),
     (sym_while_stmt, 3150), (sym_repeat_stmt, 3150), (sym_raise_stmt, 3150), (sym_try_stmt, 3150),
     (sym_ERR_clause_outside_try, 3150), (sym_begin_path_expression, 2943), (sym_invocation, 2934),
     (sym_any_invocation, 2935), (sym_this_invocation, 2641), (sym_super_invocation, 2641),
     (sym_super_body_invocation, 2935), (sym_path_expression, 2627), (sym_field_expression, 2373),
     (sym_index_expression, 2373), (sym_ladder_diagram, 7970), (sym_fb_diagram, 7970),
     (aux_sym_ERR_fb_variables_after_method_repeat1, 2343), (aux_sym_func_decl_repeat1, 7194),
     (aux_sym_fb_decl_repeat3, 2549), (aux_sym_SFC_repeat1, 7612),
     (aux_sym_stmt_list_repeat1, 2024), (aux_sym_ladder_diagram_repeat1, 8009),
     (aux_sym_fb_diagram_repeat1, 8013), (sym_identifier, 298),
     (aux_sym_ERR_unexpected_this_in_path_token1, 304),
     (aux_sym_ERR_unexpected_super_in_path_token1, 306), (sym_line_comment, 3),
     (anon_sym_LBRACE, 308), (aux_sym_test_pragma_token1, 9), (aux_sym_once_pragma_token1, 11),
     (aux_sym_must_call_pragma_token1, 13), (aux_sym_export_pragma_token1, 15),
     (anon_sym_SEMI, 310), (anon_sym_PERCENT, 312), (aux_sym_input_decls_token1, 314),
     (aux_sym_output_decls_token1, 316), (aux_sym_in_out_decls_token1, 318),
     (aux_sym_var_decls_token1, 320), (aux_sym_temp_var_decls_token1, 322),
     (aux_sym_external_var_decls_token1, 324), (aux_sym_global_var_decls_token1, 326),
     (aux_sym_fb_decl_token4, 2022), (aux_sym_method_decl_token1, 330),
     (aux_sym_prog_access_decls_token1, 332), (aux_sym_initial_step_token1, 334),
     (aux_sym_config_init_token1, 336), (aux_sym__stmt_token1, 340), (aux_sym__stmt_token2, 340),
     (aux_sym__stmt_token3, 340), (aux_sym_if_stmt_token1, 342), (aux_sym_case_stmt_token1, 344),
     (aux_sym_for_stmt_token1, 346), (aux_sym_while_stmt_token1, 348),
     (aux_sym_repeat_stmt_token1, 350), (aux_sym_raise_stmt_token1, 352),
     (aux_sym_try_stmt_token1, 354), (aux_sym_try_stmt_token2, 356),
     (aux_sym_catch_clause_token1, 356), (aux_sym_finally_clause_token1, 356), (sym_ld_rung, 358),
     (sym_fbd_network, 360), (sym_c_style_comment, 3), (sym_pascal_style_comment, 3),
     (sym_pragma, 3)]"

lemma ts_parse_row_846_scan: "row_scan tokens_63_2 0 ts_parse_row_846 = Some (Suc (Suc (Suc (Suc 0))))"
  unfolding ts_parse_row_846_def by simp

text \<open>Lines 150920 to 151032.\<close>

definition ts_parse_row_847 :: parse_row where
  "ts_parse_row_847 =
    [(sym_ERR_assign_func_call, 7530), (sym_ERR_unexpected_this_in_path, 2372),
     (sym_ERR_unexpected_super_in_path, 2372), (sym_ERR_fb_variables_after_method, 1852),
     (sym_ERR_var_access_not_allowed, 3160), (sym_ERR_var_config_not_allowed, 3160),
     (sym_ERR_var_global_not_allowed, 3160), (sym_ERR_method_decl_in_body, 3150),
     (sym_extern_pragma, 7490), (sym_wasm_pragma, 3150), (sym_warn_pragma, 7490),
     (sym_allow_pragma, 3140), (sym_test_pragma, 7490), (sym_once_pragma, 7490),
     (sym_must_call_pragma, 7490), (sym_export_pragma, 7490), (sym_pou_pragma, 7194),
     (sym_direct_variable, 7675), (sym_deref_expression, 2373), (sym_variable, 7599),
     (sym_var_access, 2373), (sym_in_out_decls, 3160), (sym_var_decls, 3160),
     (sym_retain_var_decls, 3160), (sym_temp_var_decls, 3160), (sym_external_var_decls, 3160),
     (sym_global_var_decls, 2947), (sym_loc_partly_var_decl, 3160), (sym__fb_variables, 2343),
     (sym_fb_input_decls, 3160), (sym_fb_output_decls, 3160), (sym_no_retain_var_decls, 3160),
     (sym_fb_body, 9251), (sym_method_decl, 2549), (sym_prog_access_decls, 3043), (sym_SFC, 7970),
     (sym_SFC_network, 7612), (sym_initial_step, 7439), (sym_config_init, 3047),
     (sym_variable_access, 7530), (sym_func_call, 2961), (sym_stmt_list, 7970), (sym__stmt, 2024),
     (sym_assign, 3150), (sym_if_stmt, 3150), (sym_case_stmt, 3150), (sym_for_stmt, 3150),
     (sym_while_stmt, 3150), (sym_repeat_stmt, 3150), (sym_raise_stmt, 3150), (sym_try_stmt, 3150),
     (sym_ERR_clause_outside_try, 3150), (sym_begin_path_expression, 2943), (sym_invocation, 2934),
     (sym_any_invocation, 2935), (sym_this_invocation, 2641), (sym_super_invocation, 2641),
     (sym_super_body_invocation, 2935), (sym_path_expression, 2627), (sym_field_expression, 2373),
     (sym_index_expression, 2373), (sym_ladder_diagram, 7970), (sym_fb_diagram, 7970),
     (aux_sym_ERR_fb_variables_after_method_repeat1, 2343), (aux_sym_func_decl_repeat1, 7194),
     (aux_sym_fb_decl_repeat3, 2549), (aux_sym_SFC_repeat1, 7612),
     (aux_sym_stmt_list_repeat1, 2024), (aux_sym_ladder_diagram_repeat1, 8009),
     (aux_sym_fb_diagram_repeat1, 8013), (sym_identifier, 298),
     (aux_sym_ERR_unexpected_this_in_path_token1, 304),
     (aux_sym_ERR_unexpected_super_in_path_token1, 306), (sym_line_comment, 3),
     (anon_sym_LBRACE, 308), (aux_sym_test_pragma_token1, 9), (aux_sym_once_pragma_token1, 11),
     (aux_sym_must_call_pragma_token1, 13), (aux_sym_export_pragma_token1, 15),
     (anon_sym_SEMI, 310), (anon_sym_PERCENT, 312), (aux_sym_input_decls_token1, 314),
     (aux_sym_output_decls_token1, 316), (aux_sym_in_out_decls_token1, 318),
     (aux_sym_var_decls_token1, 320), (aux_sym_temp_var_decls_token1, 322),
     (aux_sym_external_var_decls_token1, 324), (aux_sym_global_var_decls_token1, 326),
     (aux_sym_fb_decl_token4, 2024), (aux_sym_method_decl_token1, 330),
     (aux_sym_prog_access_decls_token1, 332), (aux_sym_initial_step_token1, 334),
     (aux_sym_config_init_token1, 336), (aux_sym__stmt_token1, 340), (aux_sym__stmt_token2, 340),
     (aux_sym__stmt_token3, 340), (aux_sym_if_stmt_token1, 342), (aux_sym_case_stmt_token1, 344),
     (aux_sym_for_stmt_token1, 346), (aux_sym_while_stmt_token1, 348),
     (aux_sym_repeat_stmt_token1, 350), (aux_sym_raise_stmt_token1, 352),
     (aux_sym_try_stmt_token1, 354), (aux_sym_try_stmt_token2, 356),
     (aux_sym_catch_clause_token1, 356), (aux_sym_finally_clause_token1, 356), (sym_ld_rung, 358),
     (sym_fbd_network, 360), (sym_c_style_comment, 3), (sym_pascal_style_comment, 3),
     (sym_pragma, 3)]"

lemma ts_parse_row_847_scan: "row_scan tokens_63_2 0 ts_parse_row_847 = Some (Suc (Suc (Suc (Suc 0))))"
  unfolding ts_parse_row_847_def by simp

text \<open>Lines 151033 to 151145.\<close>

definition ts_parse_row_848 :: parse_row where
  "ts_parse_row_848 =
    [(sym_ERR_assign_func_call, 7530), (sym_ERR_unexpected_this_in_path, 2372),
     (sym_ERR_unexpected_super_in_path, 2372), (sym_ERR_fb_variables_after_method, 1872),
     (sym_ERR_var_access_not_allowed, 3160), (sym_ERR_var_config_not_allowed, 3160),
     (sym_ERR_var_global_not_allowed, 3160), (sym_ERR_method_decl_in_body, 3150),
     (sym_extern_pragma, 7490), (sym_wasm_pragma, 3150), (sym_warn_pragma, 7490),
     (sym_allow_pragma, 3140), (sym_test_pragma, 7490), (sym_once_pragma, 7490),
     (sym_must_call_pragma, 7490), (sym_export_pragma, 7490), (sym_pou_pragma, 7194),
     (sym_direct_variable, 7675), (sym_deref_expression, 2373), (sym_variable, 7599),
     (sym_var_access, 2373), (sym_in_out_decls, 3160), (sym_var_decls, 3160),
     (sym_retain_var_decls, 3160), (sym_temp_var_decls, 3160), (sym_external_var_decls, 3160),
     (sym_global_var_decls, 2947), (sym_loc_partly_var_decl, 3160), (sym__fb_variables, 2343),
     (sym_fb_input_decls, 3160), (sym_fb_output_decls, 3160), (sym_no_retain_var_decls, 3160),
     (sym_fb_body, 9687), (sym_method_decl, 2549), (sym_prog_access_decls, 3043), (sym_SFC, 7970),
     (sym_SFC_network, 7612), (sym_initial_step, 7439), (sym_config_init, 3047),
     (sym_variable_access, 7530), (sym_func_call, 2961), (sym_stmt_list, 7970), (sym__stmt, 2024),
     (sym_assign, 3150), (sym_if_stmt, 3150), (sym_case_stmt, 3150), (sym_for_stmt, 3150),
     (sym_while_stmt, 3150), (sym_repeat_stmt, 3150), (sym_raise_stmt, 3150), (sym_try_stmt, 3150),
     (sym_ERR_clause_outside_try, 3150), (sym_begin_path_expression, 2943), (sym_invocation, 2934),
     (sym_any_invocation, 2935), (sym_this_invocation, 2641), (sym_super_invocation, 2641),
     (sym_super_body_invocation, 2935), (sym_path_expression, 2627), (sym_field_expression, 2373),
     (sym_index_expression, 2373), (sym_ladder_diagram, 7970), (sym_fb_diagram, 7970),
     (aux_sym_ERR_fb_variables_after_method_repeat1, 2343), (aux_sym_func_decl_repeat1, 7194),
     (aux_sym_fb_decl_repeat3, 2549), (aux_sym_SFC_repeat1, 7612),
     (aux_sym_stmt_list_repeat1, 2024), (aux_sym_ladder_diagram_repeat1, 8009),
     (aux_sym_fb_diagram_repeat1, 8013), (sym_identifier, 298),
     (aux_sym_ERR_unexpected_this_in_path_token1, 304),
     (aux_sym_ERR_unexpected_super_in_path_token1, 306), (sym_line_comment, 3),
     (anon_sym_LBRACE, 308), (aux_sym_test_pragma_token1, 9), (aux_sym_once_pragma_token1, 11),
     (aux_sym_must_call_pragma_token1, 13), (aux_sym_export_pragma_token1, 15),
     (anon_sym_SEMI, 310), (anon_sym_PERCENT, 312), (aux_sym_input_decls_token1, 314),
     (aux_sym_output_decls_token1, 316), (aux_sym_in_out_decls_token1, 318),
     (aux_sym_var_decls_token1, 320), (aux_sym_temp_var_decls_token1, 322),
     (aux_sym_external_var_decls_token1, 324), (aux_sym_global_var_decls_token1, 326),
     (aux_sym_fb_decl_token4, 2026), (aux_sym_method_decl_token1, 330),
     (aux_sym_prog_access_decls_token1, 332), (aux_sym_initial_step_token1, 334),
     (aux_sym_config_init_token1, 336), (aux_sym__stmt_token1, 340), (aux_sym__stmt_token2, 340),
     (aux_sym__stmt_token3, 340), (aux_sym_if_stmt_token1, 342), (aux_sym_case_stmt_token1, 344),
     (aux_sym_for_stmt_token1, 346), (aux_sym_while_stmt_token1, 348),
     (aux_sym_repeat_stmt_token1, 350), (aux_sym_raise_stmt_token1, 352),
     (aux_sym_try_stmt_token1, 354), (aux_sym_try_stmt_token2, 356),
     (aux_sym_catch_clause_token1, 356), (aux_sym_finally_clause_token1, 356), (sym_ld_rung, 358),
     (sym_fbd_network, 360), (sym_c_style_comment, 3), (sym_pascal_style_comment, 3),
     (sym_pragma, 3)]"

lemma ts_parse_row_848_scan: "row_scan tokens_63_2 0 ts_parse_row_848 = Some (Suc (Suc (Suc (Suc 0))))"
  unfolding ts_parse_row_848_def by simp

text \<open>Lines 151146 to 151258.\<close>

definition ts_parse_row_849 :: parse_row where
  "ts_parse_row_849 =
    [(sym_ERR_assign_func_call, 7530), (sym_ERR_unexpected_this_in_path, 2372),
     (sym_ERR_unexpected_super_in_path, 2372), (sym_ERR_fb_variables_after_method, 1873),
     (sym_ERR_var_access_not_allowed, 3160), (sym_ERR_var_config_not_allowed, 3160),
     (sym_ERR_var_global_not_allowed, 3160), (sym_ERR_method_decl_in_body, 3150),
     (sym_extern_pragma, 7490), (sym_wasm_pragma, 3150), (sym_warn_pragma, 7490),
     (sym_allow_pragma, 3140), (sym_test_pragma, 7490), (sym_once_pragma, 7490),
     (sym_must_call_pragma, 7490), (sym_export_pragma, 7490), (sym_pou_pragma, 7194),
     (sym_direct_variable, 7675), (sym_deref_expression, 2373), (sym_variable, 7599),
     (sym_var_access, 2373), (sym_in_out_decls, 3160), (sym_var_decls, 3160),
     (sym_retain_var_decls, 3160), (sym_temp_var_decls, 3160), (sym_external_var_decls, 3160),
     (sym_global_var_decls, 2947), (sym_loc_partly_var_decl, 3160), (sym__fb_variables, 2343),
     (sym_fb_input_decls, 3160), (sym_fb_output_decls, 3160), (sym_no_retain_var_decls, 3160),
     (sym_fb_body, 9704), (sym_method_decl, 2549), (sym_prog_access_decls, 3043), (sym_SFC, 7970),
     (sym_SFC_network, 7612), (sym_initial_step, 7439), (sym_config_init, 3047),
     (sym_variable_access, 7530), (sym_func_call, 2961), (sym_stmt_list, 7970), (sym__stmt, 2024),
     (sym_assign, 3150), (sym_if_stmt, 3150), (sym_case_stmt, 3150), (sym_for_stmt, 3150),
     (sym_while_stmt, 3150), (sym_repeat_stmt, 3150), (sym_raise_stmt, 3150), (sym_try_stmt, 3150),
     (sym_ERR_clause_outside_try, 3150), (sym_begin_path_expression, 2943), (sym_invocation, 2934),
     (sym_any_invocation, 2935), (sym_this_invocation, 2641), (sym_super_invocation, 2641),
     (sym_super_body_invocation, 2935), (sym_path_expression, 2627), (sym_field_expression, 2373),
     (sym_index_expression, 2373), (sym_ladder_diagram, 7970), (sym_fb_diagram, 7970),
     (aux_sym_ERR_fb_variables_after_method_repeat1, 2343), (aux_sym_func_decl_repeat1, 7194),
     (aux_sym_fb_decl_repeat3, 2549), (aux_sym_SFC_repeat1, 7612),
     (aux_sym_stmt_list_repeat1, 2024), (aux_sym_ladder_diagram_repeat1, 8009),
     (aux_sym_fb_diagram_repeat1, 8013), (sym_identifier, 298),
     (aux_sym_ERR_unexpected_this_in_path_token1, 304),
     (aux_sym_ERR_unexpected_super_in_path_token1, 306), (sym_line_comment, 3),
     (anon_sym_LBRACE, 308), (aux_sym_test_pragma_token1, 9), (aux_sym_once_pragma_token1, 11),
     (aux_sym_must_call_pragma_token1, 13), (aux_sym_export_pragma_token1, 15),
     (anon_sym_SEMI, 310), (anon_sym_PERCENT, 312), (aux_sym_input_decls_token1, 314),
     (aux_sym_output_decls_token1, 316), (aux_sym_in_out_decls_token1, 318),
     (aux_sym_var_decls_token1, 320), (aux_sym_temp_var_decls_token1, 322),
     (aux_sym_external_var_decls_token1, 324), (aux_sym_global_var_decls_token1, 326),
     (aux_sym_fb_decl_token4, 2028), (aux_sym_method_decl_token1, 330),
     (aux_sym_prog_access_decls_token1, 332), (aux_sym_initial_step_token1, 334),
     (aux_sym_config_init_token1, 336), (aux_sym__stmt_token1, 340), (aux_sym__stmt_token2, 340),
     (aux_sym__stmt_token3, 340), (aux_sym_if_stmt_token1, 342), (aux_sym_case_stmt_token1, 344),
     (aux_sym_for_stmt_token1, 346), (aux_sym_while_stmt_token1, 348),
     (aux_sym_repeat_stmt_token1, 350), (aux_sym_raise_stmt_token1, 352),
     (aux_sym_try_stmt_token1, 354), (aux_sym_try_stmt_token2, 356),
     (aux_sym_catch_clause_token1, 356), (aux_sym_finally_clause_token1, 356), (sym_ld_rung, 358),
     (sym_fbd_network, 360), (sym_c_style_comment, 3), (sym_pascal_style_comment, 3),
     (sym_pragma, 3)]"

lemma ts_parse_row_849_scan: "row_scan tokens_63_2 0 ts_parse_row_849 = Some (Suc (Suc (Suc (Suc 0))))"
  unfolding ts_parse_row_849_def by simp

text \<open>Lines 151259 to 151371.\<close>

definition ts_parse_row_850 :: parse_row where
  "ts_parse_row_850 =
    [(sym_ERR_assign_func_call, 7530), (sym_ERR_unexpected_this_in_path, 2372),
     (sym_ERR_unexpected_super_in_path, 2372), (sym_ERR_fb_variables_after_method, 1874),
     (sym_ERR_var_access_not_allowed, 3160), (sym_ERR_var_config_not_allowed, 3160),
     (sym_ERR_var_global_not_allowed, 3160), (sym_ERR_method_decl_in_body, 3150),
     (sym_extern_pragma, 7490), (sym_wasm_pragma, 3150), (sym_warn_pragma, 7490),
     (sym_allow_pragma, 3140), (sym_test_pragma, 7490), (sym_once_pragma, 7490),
     (sym_must_call_pragma, 7490), (sym_export_pragma, 7490), (sym_pou_pragma, 7194),
     (sym_direct_variable, 7675), (sym_deref_expression, 2373), (sym_variable, 7599),
     (sym_var_access, 2373), (sym_in_out_decls, 3160), (sym_var_decls, 3160),
     (sym_retain_var_decls, 3160), (sym_temp_var_decls, 3160), (sym_external_var_decls, 3160),
     (sym_global_var_decls, 2947), (sym_loc_partly_var_decl, 3160), (sym__fb_variables, 2347),
     (sym_fb_input_decls, 3160), (sym_fb_output_decls, 3160), (sym_no_retain_var_decls, 3160),
     (sym_fb_body, 9714), (sym_method_decl, 407), (sym_prog_access_decls, 3043), (sym_SFC, 7970),
     (sym_SFC_network, 7612), (sym_initial_step, 7439), (sym_config_init, 3047),
     (sym_variable_access, 7530), (sym_func_call, 2961), (sym_stmt_list, 7970), (sym__stmt, 2024),
     (sym_assign, 3150), (sym_if_stmt, 3150), (sym_case_stmt, 3150), (sym_for_stmt, 3150),
     (sym_while_stmt, 3150), (sym_repeat_stmt, 3150), (sym_raise_stmt, 3150), (sym_try_stmt, 3150),
     (sym_ERR_clause_outside_try, 3150), (sym_begin_path_expression, 2943), (sym_invocation, 2934),
     (sym_any_invocation, 2935), (sym_this_invocation, 2641), (sym_super_invocation, 2641),
     (sym_super_body_invocation, 2935), (sym_path_expression, 2627), (sym_field_expression, 2373),
     (sym_index_expression, 2373), (sym_ladder_diagram, 7970), (sym_fb_diagram, 7970),
     (aux_sym_ERR_fb_variables_after_method_repeat1, 2347), (aux_sym_func_decl_repeat1, 7194),
     (aux_sym_fb_decl_repeat3, 407), (aux_sym_SFC_repeat1, 7612), (aux_sym_stmt_list_repeat1, 2024),
     (aux_sym_ladder_diagram_repeat1, 8009), (aux_sym_fb_diagram_repeat1, 8013),
     (sym_identifier, 298), (aux_sym_ERR_unexpected_this_in_path_token1, 304),
     (aux_sym_ERR_unexpected_super_in_path_token1, 306), (sym_line_comment, 3),
     (anon_sym_LBRACE, 308), (aux_sym_test_pragma_token1, 9), (aux_sym_once_pragma_token1, 11),
     (aux_sym_must_call_pragma_token1, 13), (aux_sym_export_pragma_token1, 15),
     (anon_sym_SEMI, 310), (anon_sym_PERCENT, 312), (aux_sym_input_decls_token1, 314),
     (aux_sym_output_decls_token1, 316), (aux_sym_in_out_decls_token1, 318),
     (aux_sym_var_decls_token1, 320), (aux_sym_temp_var_decls_token1, 322),
     (aux_sym_external_var_decls_token1, 324), (aux_sym_global_var_decls_token1, 326),
     (aux_sym_fb_decl_token4, 2030), (aux_sym_method_decl_token1, 330),
     (aux_sym_prog_access_decls_token1, 332), (aux_sym_initial_step_token1, 334),
     (aux_sym_config_init_token1, 336), (aux_sym__stmt_token1, 340), (aux_sym__stmt_token2, 340),
     (aux_sym__stmt_token3, 340), (aux_sym_if_stmt_token1, 342), (aux_sym_case_stmt_token1, 344),
     (aux_sym_for_stmt_token1, 346), (aux_sym_while_stmt_token1, 348),
     (aux_sym_repeat_stmt_token1, 350), (aux_sym_raise_stmt_token1, 352),
     (aux_sym_try_stmt_token1, 354), (aux_sym_try_stmt_token2, 356),
     (aux_sym_catch_clause_token1, 356), (aux_sym_finally_clause_token1, 356), (sym_ld_rung, 358),
     (sym_fbd_network, 360), (sym_c_style_comment, 3), (sym_pascal_style_comment, 3),
     (sym_pragma, 3)]"

lemma ts_parse_row_850_scan: "row_scan tokens_63_2 0 ts_parse_row_850 = Some (Suc (Suc (Suc (Suc 0))))"
  unfolding ts_parse_row_850_def by simp

text \<open>Lines 151372 to 151484.\<close>

definition ts_parse_row_851 :: parse_row where
  "ts_parse_row_851 =
    [(sym_ERR_assign_func_call, 7530), (sym_ERR_unexpected_this_in_path, 2372),
     (sym_ERR_unexpected_super_in_path, 2372), (sym_ERR_fb_variables_after_method, 1875),
     (sym_ERR_var_access_not_allowed, 3160), (sym_ERR_var_config_not_allowed, 3160),
     (sym_ERR_var_global_not_allowed, 3160), (sym_ERR_method_decl_in_body, 3150),
     (sym_extern_pragma, 7490), (sym_wasm_pragma, 3150), (sym_warn_pragma, 7490),
     (sym_allow_pragma, 3140), (sym_test_pragma, 7490), (sym_once_pragma, 7490),
     (sym_must_call_pragma, 7490), (sym_export_pragma, 7490), (sym_pou_pragma, 7194),
     (sym_direct_variable, 7675), (sym_deref_expression, 2373), (sym_variable, 7599),
     (sym_var_access, 2373), (sym_in_out_decls, 3160), (sym_var_decls, 3160),
     (sym_retain_var_decls, 3160), (sym_temp_var_decls, 3160), (sym_external_var_decls, 3160),
     (sym_global_var_decls, 2947), (sym_loc_partly_var_decl, 3160), (sym__fb_variables, 2343),
     (sym_fb_input_decls, 3160), (sym_fb_output_decls, 3160), (sym_no_retain_var_decls, 3160),
     (sym_fb_body, 9723), (sym_method_decl, 2549), (sym_prog_access_decls, 3043), (sym_SFC, 7970),
     (sym_SFC_network, 7612), (sym_initial_step, 7439), (sym_config_init, 3047),
     (sym_variable_access, 7530), (sym_func_call, 2961), (sym_stmt_list, 7970), (sym__stmt, 2024),
     (sym_assign, 3150), (sym_if_stmt, 3150), (sym_case_stmt, 3150), (sym_for_stmt, 3150),
     (sym_while_stmt, 3150), (sym_repeat_stmt, 3150), (sym_raise_stmt, 3150), (sym_try_stmt, 3150),
     (sym_ERR_clause_outside_try, 3150), (sym_begin_path_expression, 2943), (sym_invocation, 2934),
     (sym_any_invocation, 2935), (sym_this_invocation, 2641), (sym_super_invocation, 2641),
     (sym_super_body_invocation, 2935), (sym_path_expression, 2627), (sym_field_expression, 2373),
     (sym_index_expression, 2373), (sym_ladder_diagram, 7970), (sym_fb_diagram, 7970),
     (aux_sym_ERR_fb_variables_after_method_repeat1, 2343), (aux_sym_func_decl_repeat1, 7194),
     (aux_sym_fb_decl_repeat3, 2549), (aux_sym_SFC_repeat1, 7612),
     (aux_sym_stmt_list_repeat1, 2024), (aux_sym_ladder_diagram_repeat1, 8009),
     (aux_sym_fb_diagram_repeat1, 8013), (sym_identifier, 298),
     (aux_sym_ERR_unexpected_this_in_path_token1, 304),
     (aux_sym_ERR_unexpected_super_in_path_token1, 306), (sym_line_comment, 3),
     (anon_sym_LBRACE, 308), (aux_sym_test_pragma_token1, 9), (aux_sym_once_pragma_token1, 11),
     (aux_sym_must_call_pragma_token1, 13), (aux_sym_export_pragma_token1, 15),
     (anon_sym_SEMI, 310), (anon_sym_PERCENT, 312), (aux_sym_input_decls_token1, 314),
     (aux_sym_output_decls_token1, 316), (aux_sym_in_out_decls_token1, 318),
     (aux_sym_var_decls_token1, 320), (aux_sym_temp_var_decls_token1, 322),
     (aux_sym_external_var_decls_token1, 324), (aux_sym_global_var_decls_token1, 326),
     (aux_sym_fb_decl_token4, 2032), (aux_sym_method_decl_token1, 330),
     (aux_sym_prog_access_decls_token1, 332), (aux_sym_initial_step_token1, 334),
     (aux_sym_config_init_token1, 336), (aux_sym__stmt_token1, 340), (aux_sym__stmt_token2, 340),
     (aux_sym__stmt_token3, 340), (aux_sym_if_stmt_token1, 342), (aux_sym_case_stmt_token1, 344),
     (aux_sym_for_stmt_token1, 346), (aux_sym_while_stmt_token1, 348),
     (aux_sym_repeat_stmt_token1, 350), (aux_sym_raise_stmt_token1, 352),
     (aux_sym_try_stmt_token1, 354), (aux_sym_try_stmt_token2, 356),
     (aux_sym_catch_clause_token1, 356), (aux_sym_finally_clause_token1, 356), (sym_ld_rung, 358),
     (sym_fbd_network, 360), (sym_c_style_comment, 3), (sym_pascal_style_comment, 3),
     (sym_pragma, 3)]"

lemma ts_parse_row_851_scan: "row_scan tokens_63_2 0 ts_parse_row_851 = Some (Suc (Suc (Suc (Suc 0))))"
  unfolding ts_parse_row_851_def by simp

text \<open>Lines 151485 to 151597.\<close>

definition ts_parse_row_852 :: parse_row where
  "ts_parse_row_852 =
    [(sym_ERR_assign_func_call, 7530), (sym_ERR_unexpected_this_in_path, 2372),
     (sym_ERR_unexpected_super_in_path, 2372), (sym_ERR_fb_variables_after_method, 1877),
     (sym_ERR_var_access_not_allowed, 3160), (sym_ERR_var_config_not_allowed, 3160),
     (sym_ERR_var_global_not_allowed, 3160), (sym_ERR_method_decl_in_body, 3150),
     (sym_extern_pragma, 7490), (sym_wasm_pragma, 3150), (sym_warn_pragma, 7490),
     (sym_allow_pragma, 3140), (sym_test_pragma, 7490), (sym_once_pragma, 7490),
     (sym_must_call_pragma, 7490), (sym_export_pragma, 7490), (sym_pou_pragma, 7194),
     (sym_direct_variable, 7675), (sym_deref_expression, 2373), (sym_variable, 7599),
     (sym_var_access, 2373), (sym_in_out_decls, 3160), (sym_var_decls, 3160),
     (sym_retain_var_decls, 3160), (sym_temp_var_decls, 3160), (sym_external_var_decls, 3160),
     (sym_global_var_decls, 2947), (sym_loc_partly_var_decl, 3160), (sym__fb_variables, 2347),
     (sym_fb_input_decls, 3160), (sym_fb_output_decls, 3160), (sym_no_retain_var_decls, 3160),
     (sym_fb_body, 10065), (sym_method_decl, 408), (sym_prog_access_decls, 3043), (sym_SFC, 7970),
     (sym_SFC_network, 7612), (sym_initial_step, 7439), (sym_config_init, 3047),
     (sym_variable_access, 7530), (sym_func_call, 2961), (sym_stmt_list, 7970), (sym__stmt, 2024),
     (sym_assign, 3150), (sym_if_stmt, 3150), (sym_case_stmt, 3150), (sym_for_stmt, 3150),
     (sym_while_stmt, 3150), (sym_repeat_stmt, 3150), (sym_raise_stmt, 3150), (sym_try_stmt, 3150),
     (sym_ERR_clause_outside_try, 3150), (sym_begin_path_expression, 2943), (sym_invocation, 2934),
     (sym_any_invocation, 2935), (sym_this_invocation, 2641), (sym_super_invocation, 2641),
     (sym_super_body_invocation, 2935), (sym_path_expression, 2627), (sym_field_expression, 2373),
     (sym_index_expression, 2373), (sym_ladder_diagram, 7970), (sym_fb_diagram, 7970),
     (aux_sym_ERR_fb_variables_after_method_repeat1, 2347), (aux_sym_func_decl_repeat1, 7194),
     (aux_sym_fb_decl_repeat3, 408), (aux_sym_SFC_repeat1, 7612), (aux_sym_stmt_list_repeat1, 2024),
     (aux_sym_ladder_diagram_repeat1, 8009), (aux_sym_fb_diagram_repeat1, 8013),
     (sym_identifier, 298), (aux_sym_ERR_unexpected_this_in_path_token1, 304),
     (aux_sym_ERR_unexpected_super_in_path_token1, 306), (sym_line_comment, 3),
     (anon_sym_LBRACE, 308), (aux_sym_test_pragma_token1, 9), (aux_sym_once_pragma_token1, 11),
     (aux_sym_must_call_pragma_token1, 13), (aux_sym_export_pragma_token1, 15),
     (anon_sym_SEMI, 310), (anon_sym_PERCENT, 312), (aux_sym_input_decls_token1, 314),
     (aux_sym_output_decls_token1, 316), (aux_sym_in_out_decls_token1, 318),
     (aux_sym_var_decls_token1, 320), (aux_sym_temp_var_decls_token1, 322),
     (aux_sym_external_var_decls_token1, 324), (aux_sym_global_var_decls_token1, 326),
     (aux_sym_fb_decl_token4, 2034), (aux_sym_method_decl_token1, 330),
     (aux_sym_prog_access_decls_token1, 332), (aux_sym_initial_step_token1, 334),
     (aux_sym_config_init_token1, 336), (aux_sym__stmt_token1, 340), (aux_sym__stmt_token2, 340),
     (aux_sym__stmt_token3, 340), (aux_sym_if_stmt_token1, 342), (aux_sym_case_stmt_token1, 344),
     (aux_sym_for_stmt_token1, 346), (aux_sym_while_stmt_token1, 348),
     (aux_sym_repeat_stmt_token1, 350), (aux_sym_raise_stmt_token1, 352),
     (aux_sym_try_stmt_token1, 354), (aux_sym_try_stmt_token2, 356),
     (aux_sym_catch_clause_token1, 356), (aux_sym_finally_clause_token1, 356), (sym_ld_rung, 358),
     (sym_fbd_network, 360), (sym_c_style_comment, 3), (sym_pascal_style_comment, 3),
     (sym_pragma, 3)]"

lemma ts_parse_row_852_scan: "row_scan tokens_63_2 0 ts_parse_row_852 = Some (Suc (Suc (Suc (Suc 0))))"
  unfolding ts_parse_row_852_def by simp

text \<open>Lines 151598 to 151710.\<close>

definition ts_parse_row_853 :: parse_row where
  "ts_parse_row_853 =
    [(sym_ERR_assign_func_call, 7530), (sym_ERR_unexpected_this_in_path, 2372),
     (sym_ERR_unexpected_super_in_path, 2372), (sym_ERR_fb_variables_after_method, 1479),
     (sym_ERR_var_access_not_allowed, 3160), (sym_ERR_var_config_not_allowed, 3160),
     (sym_ERR_var_global_not_allowed, 3160), (sym_ERR_method_decl_in_body, 3150),
     (sym_extern_pragma, 7490), (sym_wasm_pragma, 3150), (sym_warn_pragma, 7490),
     (sym_allow_pragma, 3140), (sym_test_pragma, 7490), (sym_once_pragma, 7490),
     (sym_must_call_pragma, 7490), (sym_export_pragma, 7490), (sym_pou_pragma, 7194),
     (sym_direct_variable, 7675), (sym_deref_expression, 2373), (sym_variable, 7599),
     (sym_var_access, 2373), (sym_in_out_decls, 3160), (sym_var_decls, 3160),
     (sym_retain_var_decls, 3160), (sym_temp_var_decls, 3160), (sym_external_var_decls, 3160),
     (sym_global_var_decls, 2947), (sym_loc_partly_var_decl, 3160), (sym__fb_variables, 2347),
     (sym_fb_input_decls, 3160), (sym_fb_output_decls, 3160), (sym_no_retain_var_decls, 3160),
     (sym_fb_body, 10083), (sym_method_decl, 513), (sym_prog_access_decls, 3043), (sym_SFC, 7970),
     (sym_SFC_network, 7612), (sym_initial_step, 7439), (sym_config_init, 3047),
     (sym_variable_access, 7530), (sym_func_call, 2961), (sym_stmt_list, 7970), (sym__stmt, 2024),
     (sym_assign, 3150), (sym_if_stmt, 3150), (sym_case_stmt, 3150), (sym_for_stmt, 3150),
     (sym_while_stmt, 3150), (sym_repeat_stmt, 3150), (sym_raise_stmt, 3150), (sym_try_stmt, 3150),
     (sym_ERR_clause_outside_try, 3150), (sym_begin_path_expression, 2943), (sym_invocation, 2934),
     (sym_any_invocation, 2935), (sym_this_invocation, 2641), (sym_super_invocation, 2641),
     (sym_super_body_invocation, 2935), (sym_path_expression, 2627), (sym_field_expression, 2373),
     (sym_index_expression, 2373), (sym_ladder_diagram, 7970), (sym_fb_diagram, 7970),
     (aux_sym_ERR_fb_variables_after_method_repeat1, 2347), (aux_sym_func_decl_repeat1, 7194),
     (aux_sym_fb_decl_repeat3, 513), (aux_sym_SFC_repeat1, 7612), (aux_sym_stmt_list_repeat1, 2024),
     (aux_sym_ladder_diagram_repeat1, 8009), (aux_sym_fb_diagram_repeat1, 8013),
     (sym_identifier, 298), (aux_sym_ERR_unexpected_this_in_path_token1, 304),
     (aux_sym_ERR_unexpected_super_in_path_token1, 306), (sym_line_comment, 3),
     (anon_sym_LBRACE, 308), (aux_sym_test_pragma_token1, 9), (aux_sym_once_pragma_token1, 11),
     (aux_sym_must_call_pragma_token1, 13), (aux_sym_export_pragma_token1, 15),
     (anon_sym_SEMI, 310), (anon_sym_PERCENT, 312), (aux_sym_input_decls_token1, 314),
     (aux_sym_output_decls_token1, 316), (aux_sym_in_out_decls_token1, 318),
     (aux_sym_var_decls_token1, 320), (aux_sym_temp_var_decls_token1, 322),
     (aux_sym_external_var_decls_token1, 324), (aux_sym_global_var_decls_token1, 326),
     (aux_sym_fb_decl_token4, 2036), (aux_sym_method_decl_token1, 330),
     (aux_sym_prog_access_decls_token1, 332), (aux_sym_initial_step_token1, 334),
     (aux_sym_config_init_token1, 336), (aux_sym__stmt_token1, 340), (aux_sym__stmt_token2, 340),
     (aux_sym__stmt_token3, 340), (aux_sym_if_stmt_token1, 342), (aux_sym_case_stmt_token1, 344),
     (aux_sym_for_stmt_token1, 346), (aux_sym_while_stmt_token1, 348),
     (aux_sym_repeat_stmt_token1, 350), (aux_sym_raise_stmt_token1, 352),
     (aux_sym_try_stmt_token1, 354), (aux_sym_try_stmt_token2, 356),
     (aux_sym_catch_clause_token1, 356), (aux_sym_finally_clause_token1, 356), (sym_ld_rung, 358),
     (sym_fbd_network, 360), (sym_c_style_comment, 3), (sym_pascal_style_comment, 3),
     (sym_pragma, 3)]"

lemma ts_parse_row_853_scan: "row_scan tokens_63_2 0 ts_parse_row_853 = Some (Suc (Suc (Suc (Suc 0))))"
  unfolding ts_parse_row_853_def by simp

text \<open>Lines 151711 to 151823.\<close>

definition ts_parse_row_854 :: parse_row where
  "ts_parse_row_854 =
    [(sym_ERR_assign_func_call, 7530), (sym_ERR_unexpected_this_in_path, 2372),
     (sym_ERR_unexpected_super_in_path, 2372), (sym_ERR_fb_variables_after_method, 1304),
     (sym_ERR_var_access_not_allowed, 3160), (sym_ERR_var_config_not_allowed, 3160),
     (sym_ERR_var_global_not_allowed, 3160), (sym_ERR_method_decl_in_body, 3150),
     (sym_extern_pragma, 7490), (sym_wasm_pragma, 3150), (sym_warn_pragma, 7490),
     (sym_allow_pragma, 3140), (sym_test_pragma, 7490), (sym_once_pragma, 7490),
     (sym_must_call_pragma, 7490), (sym_export_pragma, 7490), (sym_pou_pragma, 7194),
     (sym_direct_variable, 7675), (sym_deref_expression, 2373), (sym_variable, 7599),
     (sym_var_access, 2373), (sym_in_out_decls, 3160), (sym_var_decls, 3160),
     (sym_retain_var_decls, 3160), (sym_temp_var_decls, 3160), (sym_external_var_decls, 3160),
     (sym_global_var_decls, 2947), (sym_loc_partly_var_decl, 3160), (sym__fb_variables, 2343),
     (sym_fb_input_decls, 3160), (sym_fb_output_decls, 3160), (sym_no_retain_var_decls, 3160),
     (sym_fb_body, 9992), (sym_method_decl, 2549), (sym_prog_access_decls, 3043), (sym_SFC, 7970),
     (sym_SFC_network, 7612), (sym_initial_step, 7439), (sym_config_init, 3047),
     (sym_variable_access, 7530), (sym_func_call, 2961), (sym_stmt_list, 7970), (sym__stmt, 2024),
     (sym_assign, 3150), (sym_if_stmt, 3150), (sym_case_stmt, 3150), (sym_for_stmt, 3150),
     (sym_while_stmt, 3150), (sym_repeat_stmt, 3150), (sym_raise_stmt, 3150), (sym_try_stmt, 3150),
     (sym_ERR_clause_outside_try, 3150), (sym_begin_path_expression, 2943), (sym_invocation, 2934),
     (sym_any_invocation, 2935), (sym_this_invocation, 2641), (sym_super_invocation, 2641),
     (sym_super_body_invocation, 2935), (sym_path_expression, 2627), (sym_field_expression, 2373),
     (sym_index_expression, 2373), (sym_ladder_diagram, 7970), (sym_fb_diagram, 7970),
     (aux_sym_ERR_fb_variables_after_method_repeat1, 2343), (aux_sym_func_decl_repeat1, 7194),
     (aux_sym_fb_decl_repeat3, 2549), (aux_sym_SFC_repeat1, 7612),
     (aux_sym_stmt_list_repeat1, 2024), (aux_sym_ladder_diagram_repeat1, 8009),
     (aux_sym_fb_diagram_repeat1, 8013), (sym_identifier, 298),
     (aux_sym_ERR_unexpected_this_in_path_token1, 304),
     (aux_sym_ERR_unexpected_super_in_path_token1, 306), (sym_line_comment, 3),
     (anon_sym_LBRACE, 308), (aux_sym_test_pragma_token1, 9), (aux_sym_once_pragma_token1, 11),
     (aux_sym_must_call_pragma_token1, 13), (aux_sym_export_pragma_token1, 15),
     (anon_sym_SEMI, 310), (anon_sym_PERCENT, 312), (aux_sym_input_decls_token1, 314),
     (aux_sym_output_decls_token1, 316), (aux_sym_in_out_decls_token1, 318),
     (aux_sym_var_decls_token1, 320), (aux_sym_temp_var_decls_token1, 322),
     (aux_sym_external_var_decls_token1, 324), (aux_sym_global_var_decls_token1, 326),
     (aux_sym_fb_decl_token4, 2038), (aux_sym_method_decl_token1, 330),
     (aux_sym_prog_access_decls_token1, 332), (aux_sym_initial_step_token1, 334),
     (aux_sym_config_init_token1, 336), (aux_sym__stmt_token1, 340), (aux_sym__stmt_token2, 340),
     (aux_sym__stmt_token3, 340), (aux_sym_if_stmt_token1, 342), (aux_sym_case_stmt_token1, 344),
     (aux_sym_for_stmt_token1, 346), (aux_sym_while_stmt_token1, 348),
     (aux_sym_repeat_stmt_token1, 350), (aux_sym_raise_stmt_token1, 352),
     (aux_sym_try_stmt_token1, 354), (aux_sym_try_stmt_token2, 356),
     (aux_sym_catch_clause_token1, 356), (aux_sym_finally_clause_token1, 356), (sym_ld_rung, 358),
     (sym_fbd_network, 360), (sym_c_style_comment, 3), (sym_pascal_style_comment, 3),
     (sym_pragma, 3)]"

lemma ts_parse_row_854_scan: "row_scan tokens_63_2 0 ts_parse_row_854 = Some (Suc (Suc (Suc (Suc 0))))"
  unfolding ts_parse_row_854_def by simp

text \<open>Lines 151824 to 151936.\<close>

definition ts_parse_row_855 :: parse_row where
  "ts_parse_row_855 =
    [(sym_ERR_assign_func_call, 7530), (sym_ERR_unexpected_this_in_path, 2372),
     (sym_ERR_unexpected_super_in_path, 2372), (sym_ERR_fb_variables_after_method, 1881),
     (sym_ERR_var_access_not_allowed, 3160), (sym_ERR_var_config_not_allowed, 3160),
     (sym_ERR_var_global_not_allowed, 3160), (sym_ERR_method_decl_in_body, 3150),
     (sym_extern_pragma, 7490), (sym_wasm_pragma, 3150), (sym_warn_pragma, 7490),
     (sym_allow_pragma, 3140), (sym_test_pragma, 7490), (sym_once_pragma, 7490),
     (sym_must_call_pragma, 7490), (sym_export_pragma, 7490), (sym_pou_pragma, 7194),
     (sym_direct_variable, 7675), (sym_deref_expression, 2373), (sym_variable, 7599),
     (sym_var_access, 2373), (sym_in_out_decls, 3160), (sym_var_decls, 3160),
     (sym_retain_var_decls, 3160), (sym_temp_var_decls, 3160), (sym_external_var_decls, 3160),
     (sym_global_var_decls, 2947), (sym_loc_partly_var_decl, 3160), (sym__fb_variables, 2343),
     (sym_fb_input_decls, 3160), (sym_fb_output_decls, 3160), (sym_no_retain_var_decls, 3160),
     (sym_fb_body, 10501), (sym_method_decl, 2549), (sym_prog_access_decls, 3043), (sym_SFC, 7970),
     (sym_SFC_network, 7612), (sym_initial_step, 7439), (sym_config_init, 3047),
     (sym_variable_access, 7530), (sym_func_call, 2961), (sym_stmt_list, 7970), (sym__stmt, 2024),
     (sym_assign, 3150), (sym_if_stmt, 3150), (sym_case_stmt, 3150), (sym_for_stmt, 3150),
     (sym_while_stmt, 3150), (sym_repeat_stmt, 3150), (sym_raise_stmt, 3150), (sym_try_stmt, 3150),
     (sym_ERR_clause_outside_try, 3150), (sym_begin_path_expression, 2943), (sym_invocation, 2934),
     (sym_any_invocation, 2935), (sym_this_invocation, 2641), (sym_super_invocation, 2641),
     (sym_super_body_invocation, 2935), (sym_path_expression, 2627), (sym_field_expression, 2373),
     (sym_index_expression, 2373), (sym_ladder_diagram, 7970), (sym_fb_diagram, 7970),
     (aux_sym_ERR_fb_variables_after_method_repeat1, 2343), (aux_sym_func_decl_repeat1, 7194),
     (aux_sym_fb_decl_repeat3, 2549), (aux_sym_SFC_repeat1, 7612),
     (aux_sym_stmt_list_repeat1, 2024), (aux_sym_ladder_diagram_repeat1, 8009),
     (aux_sym_fb_diagram_repeat1, 8013), (sym_identifier, 298),
     (aux_sym_ERR_unexpected_this_in_path_token1, 304),
     (aux_sym_ERR_unexpected_super_in_path_token1, 306), (sym_line_comment, 3),
     (anon_sym_LBRACE, 308), (aux_sym_test_pragma_token1, 9), (aux_sym_once_pragma_token1, 11),
     (aux_sym_must_call_pragma_token1, 13), (aux_sym_export_pragma_token1, 15),
     (anon_sym_SEMI, 310), (anon_sym_PERCENT, 312), (aux_sym_input_decls_token1, 314),
     (aux_sym_output_decls_token1, 316), (aux_sym_in_out_decls_token1, 318),
     (aux_sym_var_decls_token1, 320), (aux_sym_temp_var_decls_token1, 322),
     (aux_sym_external_var_decls_token1, 324), (aux_sym_global_var_decls_token1, 326),
     (aux_sym_fb_decl_token4, 2040), (aux_sym_method_decl_token1, 330),
     (aux_sym_prog_access_decls_token1, 332), (aux_sym_initial_step_token1, 334),
     (aux_sym_config_init_token1, 336), (aux_sym__stmt_token1, 340), (aux_sym__stmt_token2, 340),
     (aux_sym__stmt_token3, 340), (aux_sym_if_stmt_token1, 342), (aux_sym_case_stmt_token1, 344),
     (aux_sym_for_stmt_token1, 346), (aux_sym_while_stmt_token1, 348),
     (aux_sym_repeat_stmt_token1, 350), (aux_sym_raise_stmt_token1, 352),
     (aux_sym_try_stmt_token1, 354), (aux_sym_try_stmt_token2, 356),
     (aux_sym_catch_clause_token1, 356), (aux_sym_finally_clause_token1, 356), (sym_ld_rung, 358),
     (sym_fbd_network, 360), (sym_c_style_comment, 3), (sym_pascal_style_comment, 3),
     (sym_pragma, 3)]"

lemma ts_parse_row_855_scan: "row_scan tokens_63_2 0 ts_parse_row_855 = Some (Suc (Suc (Suc (Suc 0))))"
  unfolding ts_parse_row_855_def by simp

text \<open>Lines 151937 to 152049.\<close>

definition ts_parse_row_856 :: parse_row where
  "ts_parse_row_856 =
    [(sym_ERR_assign_func_call, 7530), (sym_ERR_unexpected_this_in_path, 2372),
     (sym_ERR_unexpected_super_in_path, 2372), (sym_ERR_fb_variables_after_method, 1883),
     (sym_ERR_var_access_not_allowed, 3160), (sym_ERR_var_config_not_allowed, 3160),
     (sym_ERR_var_global_not_allowed, 3160), (sym_ERR_method_decl_in_body, 3150),
     (sym_extern_pragma, 7490), (sym_wasm_pragma, 3150), (sym_warn_pragma, 7490),
     (sym_allow_pragma, 3140), (sym_test_pragma, 7490), (sym_once_pragma, 7490),
     (sym_must_call_pragma, 7490), (sym_export_pragma, 7490), (sym_pou_pragma, 7194),
     (sym_direct_variable, 7675), (sym_deref_expression, 2373), (sym_variable, 7599),
     (sym_var_access, 2373), (sym_in_out_decls, 3160), (sym_var_decls, 3160),
     (sym_retain_var_decls, 3160), (sym_temp_var_decls, 3160), (sym_external_var_decls, 3160),
     (sym_global_var_decls, 2947), (sym_loc_partly_var_decl, 3160), (sym__fb_variables, 2347),
     (sym_fb_input_decls, 3160), (sym_fb_output_decls, 3160), (sym_no_retain_var_decls, 3160),
     (sym_fb_body, 8255), (sym_method_decl, 415), (sym_prog_access_decls, 3043), (sym_SFC, 7970),
     (sym_SFC_network, 7612), (sym_initial_step, 7439), (sym_config_init, 3047),
     (sym_variable_access, 7530), (sym_func_call, 2961), (sym_stmt_list, 7970), (sym__stmt, 2024),
     (sym_assign, 3150), (sym_if_stmt, 3150), (sym_case_stmt, 3150), (sym_for_stmt, 3150),
     (sym_while_stmt, 3150), (sym_repeat_stmt, 3150), (sym_raise_stmt, 3150), (sym_try_stmt, 3150),
     (sym_ERR_clause_outside_try, 3150), (sym_begin_path_expression, 2943), (sym_invocation, 2934),
     (sym_any_invocation, 2935), (sym_this_invocation, 2641), (sym_super_invocation, 2641),
     (sym_super_body_invocation, 2935), (sym_path_expression, 2627), (sym_field_expression, 2373),
     (sym_index_expression, 2373), (sym_ladder_diagram, 7970), (sym_fb_diagram, 7970),
     (aux_sym_ERR_fb_variables_after_method_repeat1, 2347), (aux_sym_func_decl_repeat1, 7194),
     (aux_sym_fb_decl_repeat3, 415), (aux_sym_SFC_repeat1, 7612), (aux_sym_stmt_list_repeat1, 2024),
     (aux_sym_ladder_diagram_repeat1, 8009), (aux_sym_fb_diagram_repeat1, 8013),
     (sym_identifier, 298), (aux_sym_ERR_unexpected_this_in_path_token1, 304),
     (aux_sym_ERR_unexpected_super_in_path_token1, 306), (sym_line_comment, 3),
     (anon_sym_LBRACE, 308), (aux_sym_test_pragma_token1, 9), (aux_sym_once_pragma_token1, 11),
     (aux_sym_must_call_pragma_token1, 13), (aux_sym_export_pragma_token1, 15),
     (anon_sym_SEMI, 310), (anon_sym_PERCENT, 312), (aux_sym_input_decls_token1, 314),
     (aux_sym_output_decls_token1, 316), (aux_sym_in_out_decls_token1, 318),
     (aux_sym_var_decls_token1, 320), (aux_sym_temp_var_decls_token1, 322),
     (aux_sym_external_var_decls_token1, 324), (aux_sym_global_var_decls_token1, 326),
     (aux_sym_fb_decl_token4, 2042), (aux_sym_method_decl_token1, 330),
     (aux_sym_prog_access_decls_token1, 332), (aux_sym_initial_step_token1, 334),
     (aux_sym_config_init_token1, 336), (aux_sym__stmt_token1, 340), (aux_sym__stmt_token2, 340),
     (aux_sym__stmt_token3, 340), (aux_sym_if_stmt_token1, 342), (aux_sym_case_stmt_token1, 344),
     (aux_sym_for_stmt_token1, 346), (aux_sym_while_stmt_token1, 348),
     (aux_sym_repeat_stmt_token1, 350), (aux_sym_raise_stmt_token1, 352),
     (aux_sym_try_stmt_token1, 354), (aux_sym_try_stmt_token2, 356),
     (aux_sym_catch_clause_token1, 356), (aux_sym_finally_clause_token1, 356), (sym_ld_rung, 358),
     (sym_fbd_network, 360), (sym_c_style_comment, 3), (sym_pascal_style_comment, 3),
     (sym_pragma, 3)]"

lemma ts_parse_row_856_scan: "row_scan tokens_63_2 0 ts_parse_row_856 = Some (Suc (Suc (Suc (Suc 0))))"
  unfolding ts_parse_row_856_def by simp

text \<open>Lines 152050 to 152162.\<close>

definition ts_parse_row_857 :: parse_row where
  "ts_parse_row_857 =
    [(sym_ERR_assign_func_call, 7530), (sym_ERR_unexpected_this_in_path, 2372),
     (sym_ERR_unexpected_super_in_path, 2372), (sym_ERR_fb_variables_after_method, 1306),
     (sym_ERR_var_access_not_allowed, 3160), (sym_ERR_var_config_not_allowed, 3160),
     (sym_ERR_var_global_not_allowed, 3160), (sym_ERR_method_decl_in_body, 3150),
     (sym_extern_pragma, 7490), (sym_wasm_pragma, 3150), (sym_warn_pragma, 7490),
     (sym_allow_pragma, 3140), (sym_test_pragma, 7490), (sym_once_pragma, 7490),
     (sym_must_call_pragma, 7490), (sym_export_pragma, 7490), (sym_pou_pragma, 7194),
     (sym_direct_variable, 7675), (sym_deref_expression, 2373), (sym_variable, 7599),
     (sym_var_access, 2373), (sym_in_out_decls, 3160), (sym_var_decls, 3160),
     (sym_retain_var_decls, 3160), (sym_temp_var_decls, 3160), (sym_external_var_decls, 3160),
     (sym_global_var_decls, 2947), (sym_loc_partly_var_decl, 3160), (sym__fb_variables, 2347),
     (sym_fb_input_decls, 3160), (sym_fb_output_decls, 3160), (sym_no_retain_var_decls, 3160),
     (sym_fb_body, 10056), (sym_method_decl, 725), (sym_prog_access_decls, 3043), (sym_SFC, 7970),
     (sym_SFC_network, 7612), (sym_initial_step, 7439), (sym_config_init, 3047),
     (sym_variable_access, 7530), (sym_func_call, 2961), (sym_stmt_list, 7970), (sym__stmt, 2024),
     (sym_assign, 3150), (sym_if_stmt, 3150), (sym_case_stmt, 3150), (sym_for_stmt, 3150),
     (sym_while_stmt, 3150), (sym_repeat_stmt, 3150), (sym_raise_stmt, 3150), (sym_try_stmt, 3150),
     (sym_ERR_clause_outside_try, 3150), (sym_begin_path_expression, 2943), (sym_invocation, 2934),
     (sym_any_invocation, 2935), (sym_this_invocation, 2641), (sym_super_invocation, 2641),
     (sym_super_body_invocation, 2935), (sym_path_expression, 2627), (sym_field_expression, 2373),
     (sym_index_expression, 2373), (sym_ladder_diagram, 7970), (sym_fb_diagram, 7970),
     (aux_sym_ERR_fb_variables_after_method_repeat1, 2347), (aux_sym_func_decl_repeat1, 7194),
     (aux_sym_fb_decl_repeat3, 725), (aux_sym_SFC_repeat1, 7612), (aux_sym_stmt_list_repeat1, 2024),
     (aux_sym_ladder_diagram_repeat1, 8009), (aux_sym_fb_diagram_repeat1, 8013),
     (sym_identifier, 298), (aux_sym_ERR_unexpected_this_in_path_token1, 304),
     (aux_sym_ERR_unexpected_super_in_path_token1, 306), (sym_line_comment, 3),
     (anon_sym_LBRACE, 308), (aux_sym_test_pragma_token1, 9), (aux_sym_once_pragma_token1, 11),
     (aux_sym_must_call_pragma_token1, 13), (aux_sym_export_pragma_token1, 15),
     (anon_sym_SEMI, 310), (anon_sym_PERCENT, 312), (aux_sym_input_decls_token1, 314),
     (aux_sym_output_decls_token1, 316), (aux_sym_in_out_decls_token1, 318),
     (aux_sym_var_decls_token1, 320), (aux_sym_temp_var_decls_token1, 322),
     (aux_sym_external_var_decls_token1, 324), (aux_sym_global_var_decls_token1, 326),
     (aux_sym_fb_decl_token4, 2044), (aux_sym_method_decl_token1, 330),
     (aux_sym_prog_access_decls_token1, 332), (aux_sym_initial_step_token1, 334),
     (aux_sym_config_init_token1, 336), (aux_sym__stmt_token1, 340), (aux_sym__stmt_token2, 340),
     (aux_sym__stmt_token3, 340), (aux_sym_if_stmt_token1, 342), (aux_sym_case_stmt_token1, 344),
     (aux_sym_for_stmt_token1, 346), (aux_sym_while_stmt_token1, 348),
     (aux_sym_repeat_stmt_token1, 350), (aux_sym_raise_stmt_token1, 352),
     (aux_sym_try_stmt_token1, 354), (aux_sym_try_stmt_token2, 356),
     (aux_sym_catch_clause_token1, 356), (aux_sym_finally_clause_token1, 356), (sym_ld_rung, 358),
     (sym_fbd_network, 360), (sym_c_style_comment, 3), (sym_pascal_style_comment, 3),
     (sym_pragma, 3)]"

lemma ts_parse_row_857_scan: "row_scan tokens_63_2 0 ts_parse_row_857 = Some (Suc (Suc (Suc (Suc 0))))"
  unfolding ts_parse_row_857_def by simp

text \<open>Lines 152163 to 152275.\<close>

definition ts_parse_row_858 :: parse_row where
  "ts_parse_row_858 =
    [(sym_ERR_assign_func_call, 7530), (sym_ERR_unexpected_this_in_path, 2372),
     (sym_ERR_unexpected_super_in_path, 2372), (sym_ERR_fb_variables_after_method, 1880),
     (sym_ERR_var_access_not_allowed, 3160), (sym_ERR_var_config_not_allowed, 3160),
     (sym_ERR_var_global_not_allowed, 3160), (sym_ERR_method_decl_in_body, 3150),
     (sym_extern_pragma, 7490), (sym_wasm_pragma, 3150), (sym_warn_pragma, 7490),
     (sym_allow_pragma, 3140), (sym_test_pragma, 7490), (sym_once_pragma, 7490),
     (sym_must_call_pragma, 7490), (sym_export_pragma, 7490), (sym_pou_pragma, 7194),
     (sym_direct_variable, 7675), (sym_deref_expression, 2373), (sym_variable, 7599),
     (sym_var_access, 2373), (sym_in_out_decls, 3160), (sym_var_decls, 3160),
     (sym_retain_var_decls, 3160), (sym_temp_var_decls, 3160), (sym_external_var_decls, 3160),
     (sym_global_var_decls, 2947), (sym_loc_partly_var_decl, 3160), (sym__fb_variables, 2347),
     (sym_fb_input_decls, 3160), (sym_fb_output_decls, 3160), (sym_no_retain_var_decls, 3160),
     (sym_fb_body, 8438), (sym_method_decl, 379), (sym_prog_access_decls, 3043), (sym_SFC, 7970),
     (sym_SFC_network, 7612), (sym_initial_step, 7439), (sym_config_init, 3047),
     (sym_variable_access, 7530), (sym_func_call, 2961), (sym_stmt_list, 7970), (sym__stmt, 2024),
     (sym_assign, 3150), (sym_if_stmt, 3150), (sym_case_stmt, 3150), (sym_for_stmt, 3150),
     (sym_while_stmt, 3150), (sym_repeat_stmt, 3150), (sym_raise_stmt, 3150), (sym_try_stmt, 3150),
     (sym_ERR_clause_outside_try, 3150), (sym_begin_path_expression, 2943), (sym_invocation, 2934),
     (sym_any_invocation, 2935), (sym_this_invocation, 2641), (sym_super_invocation, 2641),
     (sym_super_body_invocation, 2935), (sym_path_expression, 2627), (sym_field_expression, 2373),
     (sym_index_expression, 2373), (sym_ladder_diagram, 7970), (sym_fb_diagram, 7970),
     (aux_sym_ERR_fb_variables_after_method_repeat1, 2347), (aux_sym_func_decl_repeat1, 7194),
     (aux_sym_fb_decl_repeat3, 379), (aux_sym_SFC_repeat1, 7612), (aux_sym_stmt_list_repeat1, 2024),
     (aux_sym_ladder_diagram_repeat1, 8009), (aux_sym_fb_diagram_repeat1, 8013),
     (sym_identifier, 298), (aux_sym_ERR_unexpected_this_in_path_token1, 304),
     (aux_sym_ERR_unexpected_super_in_path_token1, 306), (sym_line_comment, 3),
     (anon_sym_LBRACE, 308), (aux_sym_test_pragma_token1, 9), (aux_sym_once_pragma_token1, 11),
     (aux_sym_must_call_pragma_token1, 13), (aux_sym_export_pragma_token1, 15),
     (anon_sym_SEMI, 310), (anon_sym_PERCENT, 312), (aux_sym_input_decls_token1, 314),
     (aux_sym_output_decls_token1, 316), (aux_sym_in_out_decls_token1, 318),
     (aux_sym_var_decls_token1, 320), (aux_sym_temp_var_decls_token1, 322),
     (aux_sym_external_var_decls_token1, 324), (aux_sym_global_var_decls_token1, 326),
     (aux_sym_fb_decl_token4, 2046), (aux_sym_method_decl_token1, 330),
     (aux_sym_prog_access_decls_token1, 332), (aux_sym_initial_step_token1, 334),
     (aux_sym_config_init_token1, 336), (aux_sym__stmt_token1, 340), (aux_sym__stmt_token2, 340),
     (aux_sym__stmt_token3, 340), (aux_sym_if_stmt_token1, 342), (aux_sym_case_stmt_token1, 344),
     (aux_sym_for_stmt_token1, 346), (aux_sym_while_stmt_token1, 348),
     (aux_sym_repeat_stmt_token1, 350), (aux_sym_raise_stmt_token1, 352),
     (aux_sym_try_stmt_token1, 354), (aux_sym_try_stmt_token2, 356),
     (aux_sym_catch_clause_token1, 356), (aux_sym_finally_clause_token1, 356), (sym_ld_rung, 358),
     (sym_fbd_network, 360), (sym_c_style_comment, 3), (sym_pascal_style_comment, 3),
     (sym_pragma, 3)]"

lemma ts_parse_row_858_scan: "row_scan tokens_63_2 0 ts_parse_row_858 = Some (Suc (Suc (Suc (Suc 0))))"
  unfolding ts_parse_row_858_def by simp

text \<open>Lines 152276 to 152388.\<close>

definition ts_parse_row_859 :: parse_row where
  "ts_parse_row_859 =
    [(sym_ERR_assign_func_call, 7530), (sym_ERR_unexpected_this_in_path, 2372),
     (sym_ERR_unexpected_super_in_path, 2372), (sym_ERR_fb_variables_after_method, 1484),
     (sym_ERR_var_access_not_allowed, 3160), (sym_ERR_var_config_not_allowed, 3160),
     (sym_ERR_var_global_not_allowed, 3160), (sym_ERR_method_decl_in_body, 3150),
     (sym_extern_pragma, 7490), (sym_wasm_pragma, 3150), (sym_warn_pragma, 7490),
     (sym_allow_pragma, 3140), (sym_test_pragma, 7490), (sym_once_pragma, 7490),
     (sym_must_call_pragma, 7490), (sym_export_pragma, 7490), (sym_pou_pragma, 7194),
     (sym_direct_variable, 7675), (sym_deref_expression, 2373), (sym_variable, 7599),
     (sym_var_access, 2373), (sym_in_out_decls, 3160), (sym_var_decls, 3160),
     (sym_retain_var_decls, 3160), (sym_temp_var_decls, 3160), (sym_external_var_decls, 3160),
     (sym_global_var_decls, 2947), (sym_loc_partly_var_decl, 3160), (sym__fb_variables, 2343),
     (sym_fb_input_decls, 3160), (sym_fb_output_decls, 3160), (sym_no_retain_var_decls, 3160),
     (sym_fb_body, 10130), (sym_method_decl, 2549), (sym_prog_access_decls, 3043), (sym_SFC, 7970),
     (sym_SFC_network, 7612), (sym_initial_step, 7439), (sym_config_init, 3047),
     (sym_variable_access, 7530), (sym_func_call, 2961), (sym_stmt_list, 7970), (sym__stmt, 2024),
     (sym_assign, 3150), (sym_if_stmt, 3150), (sym_case_stmt, 3150), (sym_for_stmt, 3150),
     (sym_while_stmt, 3150), (sym_repeat_stmt, 3150), (sym_raise_stmt, 3150), (sym_try_stmt, 3150),
     (sym_ERR_clause_outside_try, 3150), (sym_begin_path_expression, 2943), (sym_invocation, 2934),
     (sym_any_invocation, 2935), (sym_this_invocation, 2641), (sym_super_invocation, 2641),
     (sym_super_body_invocation, 2935), (sym_path_expression, 2627), (sym_field_expression, 2373),
     (sym_index_expression, 2373), (sym_ladder_diagram, 7970), (sym_fb_diagram, 7970),
     (aux_sym_ERR_fb_variables_after_method_repeat1, 2343), (aux_sym_func_decl_repeat1, 7194),
     (aux_sym_fb_decl_repeat3, 2549), (aux_sym_SFC_repeat1, 7612),
     (aux_sym_stmt_list_repeat1, 2024), (aux_sym_ladder_diagram_repeat1, 8009),
     (aux_sym_fb_diagram_repeat1, 8013), (sym_identifier, 298),
     (aux_sym_ERR_unexpected_this_in_path_token1, 304),
     (aux_sym_ERR_unexpected_super_in_path_token1, 306), (sym_line_comment, 3),
     (anon_sym_LBRACE, 308), (aux_sym_test_pragma_token1, 9), (aux_sym_once_pragma_token1, 11),
     (aux_sym_must_call_pragma_token1, 13), (aux_sym_export_pragma_token1, 15),
     (anon_sym_SEMI, 310), (anon_sym_PERCENT, 312), (aux_sym_input_decls_token1, 314),
     (aux_sym_output_decls_token1, 316), (aux_sym_in_out_decls_token1, 318),
     (aux_sym_var_decls_token1, 320), (aux_sym_temp_var_decls_token1, 322),
     (aux_sym_external_var_decls_token1, 324), (aux_sym_global_var_decls_token1, 326),
     (aux_sym_fb_decl_token4, 2048), (aux_sym_method_decl_token1, 330),
     (aux_sym_prog_access_decls_token1, 332), (aux_sym_initial_step_token1, 334),
     (aux_sym_config_init_token1, 336), (aux_sym__stmt_token1, 340), (aux_sym__stmt_token2, 340),
     (aux_sym__stmt_token3, 340), (aux_sym_if_stmt_token1, 342), (aux_sym_case_stmt_token1, 344),
     (aux_sym_for_stmt_token1, 346), (aux_sym_while_stmt_token1, 348),
     (aux_sym_repeat_stmt_token1, 350), (aux_sym_raise_stmt_token1, 352),
     (aux_sym_try_stmt_token1, 354), (aux_sym_try_stmt_token2, 356),
     (aux_sym_catch_clause_token1, 356), (aux_sym_finally_clause_token1, 356), (sym_ld_rung, 358),
     (sym_fbd_network, 360), (sym_c_style_comment, 3), (sym_pascal_style_comment, 3),
     (sym_pragma, 3)]"

lemma ts_parse_row_859_scan: "row_scan tokens_63_2 0 ts_parse_row_859 = Some (Suc (Suc (Suc (Suc 0))))"
  unfolding ts_parse_row_859_def by simp

text \<open>Lines 152389 to 152501.\<close>

definition ts_parse_row_860 :: parse_row where
  "ts_parse_row_860 =
    [(sym_ERR_assign_func_call, 7530), (sym_ERR_unexpected_this_in_path, 2372),
     (sym_ERR_unexpected_super_in_path, 2372), (sym_ERR_fb_variables_after_method, 1890),
     (sym_ERR_var_access_not_allowed, 3160), (sym_ERR_var_config_not_allowed, 3160),
     (sym_ERR_var_global_not_allowed, 3160), (sym_ERR_method_decl_in_body, 3150),
     (sym_extern_pragma, 7490), (sym_wasm_pragma, 3150), (sym_warn_pragma, 7490),
     (sym_allow_pragma, 3140), (sym_test_pragma, 7490), (sym_once_pragma, 7490),
     (sym_must_call_pragma, 7490), (sym_export_pragma, 7490), (sym_pou_pragma, 7194),
     (sym_direct_variable, 7675), (sym_deref_expression, 2373), (sym_variable, 7599),
     (sym_var_access, 2373), (sym_in_out_decls, 3160), (sym_var_decls, 3160),
     (sym_retain_var_decls, 3160), (sym_temp_var_decls, 3160), (sym_external_var_decls, 3160),
     (sym_global_var_decls, 2947), (sym_loc_partly_var_decl, 3160), (sym__fb_variables, 2343),
     (sym_fb_input_decls, 3160), (sym_fb_output_decls, 3160), (sym_no_retain_var_decls, 3160),
     (sym_fb_body, 8361), (sym_method_decl, 2549), (sym_prog_access_decls, 3043), (sym_SFC, 7970),
     (sym_SFC_network, 7612), (sym_initial_step, 7439), (sym_config_init, 3047),
     (sym_variable_access, 7530), (sym_func_call, 2961), (sym_stmt_list, 7970), (sym__stmt, 2024),
     (sym_assign, 3150), (sym_if_stmt, 3150), (sym_case_stmt, 3150), (sym_for_stmt, 3150),
     (sym_while_stmt, 3150), (sym_repeat_stmt, 3150), (sym_raise_stmt, 3150), (sym_try_stmt, 3150),
     (sym_ERR_clause_outside_try, 3150), (sym_begin_path_expression, 2943), (sym_invocation, 2934),
     (sym_any_invocation, 2935), (sym_this_invocation, 2641), (sym_super_invocation, 2641),
     (sym_super_body_invocation, 2935), (sym_path_expression, 2627), (sym_field_expression, 2373),
     (sym_index_expression, 2373), (sym_ladder_diagram, 7970), (sym_fb_diagram, 7970),
     (aux_sym_ERR_fb_variables_after_method_repeat1, 2343), (aux_sym_func_decl_repeat1, 7194),
     (aux_sym_fb_decl_repeat3, 2549), (aux_sym_SFC_repeat1, 7612),
     (aux_sym_stmt_list_repeat1, 2024), (aux_sym_ladder_diagram_repeat1, 8009),
     (aux_sym_fb_diagram_repeat1, 8013), (sym_identifier, 298),
     (aux_sym_ERR_unexpected_this_in_path_token1, 304),
     (aux_sym_ERR_unexpected_super_in_path_token1, 306), (sym_line_comment, 3),
     (anon_sym_LBRACE, 308), (aux_sym_test_pragma_token1, 9), (aux_sym_once_pragma_token1, 11),
     (aux_sym_must_call_pragma_token1, 13), (aux_sym_export_pragma_token1, 15),
     (anon_sym_SEMI, 310), (anon_sym_PERCENT, 312), (aux_sym_input_decls_token1, 314),
     (aux_sym_output_decls_token1, 316), (aux_sym_in_out_decls_token1, 318),
     (aux_sym_var_decls_token1, 320), (aux_sym_temp_var_decls_token1, 322),
     (aux_sym_external_var_decls_token1, 324), (aux_sym_global_var_decls_token1, 326),
     (aux_sym_fb_decl_token4, 2050), (aux_sym_method_decl_token1, 330),
     (aux_sym_prog_access_decls_token1, 332), (aux_sym_initial_step_token1, 334),
     (aux_sym_config_init_token1, 336), (aux_sym__stmt_token1, 340), (aux_sym__stmt_token2, 340),
     (aux_sym__stmt_token3, 340), (aux_sym_if_stmt_token1, 342), (aux_sym_case_stmt_token1, 344),
     (aux_sym_for_stmt_token1, 346), (aux_sym_while_stmt_token1, 348),
     (aux_sym_repeat_stmt_token1, 350), (aux_sym_raise_stmt_token1, 352),
     (aux_sym_try_stmt_token1, 354), (aux_sym_try_stmt_token2, 356),
     (aux_sym_catch_clause_token1, 356), (aux_sym_finally_clause_token1, 356), (sym_ld_rung, 358),
     (sym_fbd_network, 360), (sym_c_style_comment, 3), (sym_pascal_style_comment, 3),
     (sym_pragma, 3)]"

lemma ts_parse_row_860_scan: "row_scan tokens_63_2 0 ts_parse_row_860 = Some (Suc (Suc (Suc (Suc 0))))"
  unfolding ts_parse_row_860_def by simp

text \<open>Lines 152502 to 152614.\<close>

definition ts_parse_row_861 :: parse_row where
  "ts_parse_row_861 =
    [(sym_ERR_assign_func_call, 7530), (sym_ERR_unexpected_this_in_path, 2372),
     (sym_ERR_unexpected_super_in_path, 2372), (sym_ERR_fb_variables_after_method, 1485),
     (sym_ERR_var_access_not_allowed, 3160), (sym_ERR_var_config_not_allowed, 3160),
     (sym_ERR_var_global_not_allowed, 3160), (sym_ERR_method_decl_in_body, 3150),
     (sym_extern_pragma, 7490), (sym_wasm_pragma, 3150), (sym_warn_pragma, 7490),
     (sym_allow_pragma, 3140), (sym_test_pragma, 7490), (sym_once_pragma, 7490),
     (sym_must_call_pragma, 7490), (sym_export_pragma, 7490), (sym_pou_pragma, 7194),
     (sym_direct_variable, 7675), (sym_deref_expression, 2373), (sym_variable, 7599),
     (sym_var_access, 2373), (sym_in_out_decls, 3160), (sym_var_decls, 3160),
     (sym_retain_var_decls, 3160), (sym_temp_var_decls, 3160), (sym_external_var_decls, 3160),
     (sym_global_var_decls, 2947), (sym_loc_partly_var_decl, 3160), (sym__fb_variables, 2347),
     (sym_fb_input_decls, 3160), (sym_fb_output_decls, 3160), (sym_no_retain_var_decls, 3160),
     (sym_fb_body, 10185), (sym_method_decl, 524), (sym_prog_access_decls, 3043), (sym_SFC, 7970),
     (sym_SFC_network, 7612), (sym_initial_step, 7439), (sym_config_init, 3047),
     (sym_variable_access, 7530), (sym_func_call, 2961), (sym_stmt_list, 7970), (sym__stmt, 2024),
     (sym_assign, 3150), (sym_if_stmt, 3150), (sym_case_stmt, 3150), (sym_for_stmt, 3150),
     (sym_while_stmt, 3150), (sym_repeat_stmt, 3150), (sym_raise_stmt, 3150), (sym_try_stmt, 3150),
     (sym_ERR_clause_outside_try, 3150), (sym_begin_path_expression, 2943), (sym_invocation, 2934),
     (sym_any_invocation, 2935), (sym_this_invocation, 2641), (sym_super_invocation, 2641),
     (sym_super_body_invocation, 2935), (sym_path_expression, 2627), (sym_field_expression, 2373),
     (sym_index_expression, 2373), (sym_ladder_diagram, 7970), (sym_fb_diagram, 7970),
     (aux_sym_ERR_fb_variables_after_method_repeat1, 2347), (aux_sym_func_decl_repeat1, 7194),
     (aux_sym_fb_decl_repeat3, 524), (aux_sym_SFC_repeat1, 7612), (aux_sym_stmt_list_repeat1, 2024),
     (aux_sym_ladder_diagram_repeat1, 8009), (aux_sym_fb_diagram_repeat1, 8013),
     (sym_identifier, 298), (aux_sym_ERR_unexpected_this_in_path_token1, 304),
     (aux_sym_ERR_unexpected_super_in_path_token1, 306), (sym_line_comment, 3),
     (anon_sym_LBRACE, 308), (aux_sym_test_pragma_token1, 9), (aux_sym_once_pragma_token1, 11),
     (aux_sym_must_call_pragma_token1, 13), (aux_sym_export_pragma_token1, 15),
     (anon_sym_SEMI, 310), (anon_sym_PERCENT, 312), (aux_sym_input_decls_token1, 314),
     (aux_sym_output_decls_token1, 316), (aux_sym_in_out_decls_token1, 318),
     (aux_sym_var_decls_token1, 320), (aux_sym_temp_var_decls_token1, 322),
     (aux_sym_external_var_decls_token1, 324), (aux_sym_global_var_decls_token1, 326),
     (aux_sym_fb_decl_token4, 2052), (aux_sym_method_decl_token1, 330),
     (aux_sym_prog_access_decls_token1, 332), (aux_sym_initial_step_token1, 334),
     (aux_sym_config_init_token1, 336), (aux_sym__stmt_token1, 340), (aux_sym__stmt_token2, 340),
     (aux_sym__stmt_token3, 340), (aux_sym_if_stmt_token1, 342), (aux_sym_case_stmt_token1, 344),
     (aux_sym_for_stmt_token1, 346), (aux_sym_while_stmt_token1, 348),
     (aux_sym_repeat_stmt_token1, 350), (aux_sym_raise_stmt_token1, 352),
     (aux_sym_try_stmt_token1, 354), (aux_sym_try_stmt_token2, 356),
     (aux_sym_catch_clause_token1, 356), (aux_sym_finally_clause_token1, 356), (sym_ld_rung, 358),
     (sym_fbd_network, 360), (sym_c_style_comment, 3), (sym_pascal_style_comment, 3),
     (sym_pragma, 3)]"

lemma ts_parse_row_861_scan: "row_scan tokens_63_2 0 ts_parse_row_861 = Some (Suc (Suc (Suc (Suc 0))))"
  unfolding ts_parse_row_861_def by simp

text \<open>Lines 152615 to 152727.\<close>

definition ts_parse_row_862 :: parse_row where
  "ts_parse_row_862 =
    [(sym_ERR_assign_func_call, 7530), (sym_ERR_unexpected_this_in_path, 2372),
     (sym_ERR_unexpected_super_in_path, 2372), (sym_ERR_fb_variables_after_method, 1315),
     (sym_ERR_var_access_not_allowed, 3160), (sym_ERR_var_config_not_allowed, 3160),
     (sym_ERR_var_global_not_allowed, 3160), (sym_ERR_method_decl_in_body, 3150),
     (sym_extern_pragma, 7490), (sym_wasm_pragma, 3150), (sym_warn_pragma, 7490),
     (sym_allow_pragma, 3140), (sym_test_pragma, 7490), (sym_once_pragma, 7490),
     (sym_must_call_pragma, 7490), (sym_export_pragma, 7490), (sym_pou_pragma, 7194),
     (sym_direct_variable, 7675), (sym_deref_expression, 2373), (sym_variable, 7599),
     (sym_var_access, 2373), (sym_in_out_decls, 3160), (sym_var_decls, 3160),
     (sym_retain_var_decls, 3160), (sym_temp_var_decls, 3160), (sym_external_var_decls, 3160),
     (sym_global_var_decls, 2947), (sym_loc_partly_var_decl, 3160), (sym__fb_variables, 2343),
     (sym_fb_input_decls, 3160), (sym_fb_output_decls, 3160), (sym_no_retain_var_decls, 3160),
     (sym_fb_body, 10163), (sym_method_decl, 2549), (sym_prog_access_decls, 3043), (sym_SFC, 7970),
     (sym_SFC_network, 7612), (sym_initial_step, 7439), (sym_config_init, 3047),
     (sym_variable_access, 7530), (sym_func_call, 2961), (sym_stmt_list, 7970), (sym__stmt, 2024),
     (sym_assign, 3150), (sym_if_stmt, 3150), (sym_case_stmt, 3150), (sym_for_stmt, 3150),
     (sym_while_stmt, 3150), (sym_repeat_stmt, 3150), (sym_raise_stmt, 3150), (sym_try_stmt, 3150),
     (sym_ERR_clause_outside_try, 3150), (sym_begin_path_expression, 2943), (sym_invocation, 2934),
     (sym_any_invocation, 2935), (sym_this_invocation, 2641), (sym_super_invocation, 2641),
     (sym_super_body_invocation, 2935), (sym_path_expression, 2627), (sym_field_expression, 2373),
     (sym_index_expression, 2373), (sym_ladder_diagram, 7970), (sym_fb_diagram, 7970),
     (aux_sym_ERR_fb_variables_after_method_repeat1, 2343), (aux_sym_func_decl_repeat1, 7194),
     (aux_sym_fb_decl_repeat3, 2549), (aux_sym_SFC_repeat1, 7612),
     (aux_sym_stmt_list_repeat1, 2024), (aux_sym_ladder_diagram_repeat1, 8009),
     (aux_sym_fb_diagram_repeat1, 8013), (sym_identifier, 298),
     (aux_sym_ERR_unexpected_this_in_path_token1, 304),
     (aux_sym_ERR_unexpected_super_in_path_token1, 306), (sym_line_comment, 3),
     (anon_sym_LBRACE, 308), (aux_sym_test_pragma_token1, 9), (aux_sym_once_pragma_token1, 11),
     (aux_sym_must_call_pragma_token1, 13), (aux_sym_export_pragma_token1, 15),
     (anon_sym_SEMI, 310), (anon_sym_PERCENT, 312), (aux_sym_input_decls_token1, 314),
     (aux_sym_output_decls_token1, 316), (aux_sym_in_out_decls_token1, 318),
     (aux_sym_var_decls_token1, 320), (aux_sym_temp_var_decls_token1, 322),
     (aux_sym_external_var_decls_token1, 324), (aux_sym_global_var_decls_token1, 326),
     (aux_sym_fb_decl_token4, 2054), (aux_sym_method_decl_token1, 330),
     (aux_sym_prog_access_decls_token1, 332), (aux_sym_initial_step_token1, 334),
     (aux_sym_config_init_token1, 336), (aux_sym__stmt_token1, 340), (aux_sym__stmt_token2, 340),
     (aux_sym__stmt_token3, 340), (aux_sym_if_stmt_token1, 342), (aux_sym_case_stmt_token1, 344),
     (aux_sym_for_stmt_token1, 346), (aux_sym_while_stmt_token1, 348),
     (aux_sym_repeat_stmt_token1, 350), (aux_sym_raise_stmt_token1, 352),
     (aux_sym_try_stmt_token1, 354), (aux_sym_try_stmt_token2, 356),
     (aux_sym_catch_clause_token1, 356), (aux_sym_finally_clause_token1, 356), (sym_ld_rung, 358),
     (sym_fbd_network, 360), (sym_c_style_comment, 3), (sym_pascal_style_comment, 3),
     (sym_pragma, 3)]"

lemma ts_parse_row_862_scan: "row_scan tokens_63_2 0 ts_parse_row_862 = Some (Suc (Suc (Suc (Suc 0))))"
  unfolding ts_parse_row_862_def by simp

text \<open>Lines 152728 to 152840.\<close>

definition ts_parse_row_863 :: parse_row where
  "ts_parse_row_863 =
    [(sym_ERR_assign_func_call, 7530), (sym_ERR_unexpected_this_in_path, 2372),
     (sym_ERR_unexpected_super_in_path, 2372), (sym_ERR_fb_variables_after_method, 1899),
     (sym_ERR_var_access_not_allowed, 3160), (sym_ERR_var_config_not_allowed, 3160),
     (sym_ERR_var_global_not_allowed, 3160), (sym_ERR_method_decl_in_body, 3150),
     (sym_extern_pragma, 7490), (sym_wasm_pragma, 3150), (sym_warn_pragma, 7490),
     (sym_allow_pragma, 3140), (sym_test_pragma, 7490), (sym_once_pragma, 7490),
     (sym_must_call_pragma, 7490), (sym_export_pragma, 7490), (sym_pou_pragma, 7194),
     (sym_direct_variable, 7675), (sym_deref_expression, 2373), (sym_variable, 7599),
     (sym_var_access, 2373), (sym_in_out_decls, 3160), (sym_var_decls, 3160),
     (sym_retain_var_decls, 3160), (sym_temp_var_decls, 3160), (sym_external_var_decls, 3160),
     (sym_global_var_decls, 2947), (sym_loc_partly_var_decl, 3160), (sym__fb_variables, 2343),
     (sym_fb_input_decls, 3160), (sym_fb_output_decls, 3160), (sym_no_retain_var_decls, 3160),
     (sym_fb_body, 8562), (sym_method_decl, 2549), (sym_prog_access_decls, 3043), (sym_SFC, 7970),
     (sym_SFC_network, 7612), (sym_initial_step, 7439), (sym_config_init, 3047),
     (sym_variable_access, 7530), (sym_func_call, 2961), (sym_stmt_list, 7970), (sym__stmt, 2024),
     (sym_assign, 3150), (sym_if_stmt, 3150), (sym_case_stmt, 3150), (sym_for_stmt, 3150),
     (sym_while_stmt, 3150), (sym_repeat_stmt, 3150), (sym_raise_stmt, 3150), (sym_try_stmt, 3150),
     (sym_ERR_clause_outside_try, 3150), (sym_begin_path_expression, 2943), (sym_invocation, 2934),
     (sym_any_invocation, 2935), (sym_this_invocation, 2641), (sym_super_invocation, 2641),
     (sym_super_body_invocation, 2935), (sym_path_expression, 2627), (sym_field_expression, 2373),
     (sym_index_expression, 2373), (sym_ladder_diagram, 7970), (sym_fb_diagram, 7970),
     (aux_sym_ERR_fb_variables_after_method_repeat1, 2343), (aux_sym_func_decl_repeat1, 7194),
     (aux_sym_fb_decl_repeat3, 2549), (aux_sym_SFC_repeat1, 7612),
     (aux_sym_stmt_list_repeat1, 2024), (aux_sym_ladder_diagram_repeat1, 8009),
     (aux_sym_fb_diagram_repeat1, 8013), (sym_identifier, 298),
     (aux_sym_ERR_unexpected_this_in_path_token1, 304),
     (aux_sym_ERR_unexpected_super_in_path_token1, 306), (sym_line_comment, 3),
     (anon_sym_LBRACE, 308), (aux_sym_test_pragma_token1, 9), (aux_sym_once_pragma_token1, 11),
     (aux_sym_must_call_pragma_token1, 13), (aux_sym_export_pragma_token1, 15),
     (anon_sym_SEMI, 310), (anon_sym_PERCENT, 312), (aux_sym_input_decls_token1, 314),
     (aux_sym_output_decls_token1, 316), (aux_sym_in_out_decls_token1, 318),
     (aux_sym_var_decls_token1, 320), (aux_sym_temp_var_decls_token1, 322),
     (aux_sym_external_var_decls_token1, 324), (aux_sym_global_var_decls_token1, 326),
     (aux_sym_fb_decl_token4, 2056), (aux_sym_method_decl_token1, 330),
     (aux_sym_prog_access_decls_token1, 332), (aux_sym_initial_step_token1, 334),
     (aux_sym_config_init_token1, 336), (aux_sym__stmt_token1, 340), (aux_sym__stmt_token2, 340),
     (aux_sym__stmt_token3, 340), (aux_sym_if_stmt_token1, 342), (aux_sym_case_stmt_token1, 344),
     (aux_sym_for_stmt_token1, 346), (aux_sym_while_stmt_token1, 348),
     (aux_sym_repeat_stmt_token1, 350), (aux_sym_raise_stmt_token1, 352),
     (aux_sym_try_stmt_token1, 354), (aux_sym_try_stmt_token2, 356),
     (aux_sym_catch_clause_token1, 356), (aux_sym_finally_clause_token1, 356), (sym_ld_rung, 358),
     (sym_fbd_network, 360), (sym_c_style_comment, 3), (sym_pascal_style_comment, 3),
     (sym_pragma, 3)]"

lemma ts_parse_row_863_scan: "row_scan tokens_63_2 0 ts_parse_row_863 = Some (Suc (Suc (Suc (Suc 0))))"
  unfolding ts_parse_row_863_def by simp

text \<open>Lines 152841 to 152953.\<close>

definition ts_parse_row_864 :: parse_row where
  "ts_parse_row_864 =
    [(sym_ERR_assign_func_call, 7530), (sym_ERR_unexpected_this_in_path, 2372),
     (sym_ERR_unexpected_super_in_path, 2372), (sym_ERR_fb_variables_after_method, 1900),
     (sym_ERR_var_access_not_allowed, 3160), (sym_ERR_var_config_not_allowed, 3160),
     (sym_ERR_var_global_not_allowed, 3160), (sym_ERR_method_decl_in_body, 3150),
     (sym_extern_pragma, 7490), (sym_wasm_pragma, 3150), (sym_warn_pragma, 7490),
     (sym_allow_pragma, 3140), (sym_test_pragma, 7490), (sym_once_pragma, 7490),
     (sym_must_call_pragma, 7490), (sym_export_pragma, 7490), (sym_pou_pragma, 7194),
     (sym_direct_variable, 7675), (sym_deref_expression, 2373), (sym_variable, 7599),
     (sym_var_access, 2373), (sym_in_out_decls, 3160), (sym_var_decls, 3160),
     (sym_retain_var_decls, 3160), (sym_temp_var_decls, 3160), (sym_external_var_decls, 3160),
     (sym_global_var_decls, 2947), (sym_loc_partly_var_decl, 3160), (sym__fb_variables, 2347),
     (sym_fb_input_decls, 3160), (sym_fb_output_decls, 3160), (sym_no_retain_var_decls, 3160),
     (sym_fb_body, 8588), (sym_method_decl, 431), (sym_prog_access_decls, 3043), (sym_SFC, 7970),
     (sym_SFC_network, 7612), (sym_initial_step, 7439), (sym_config_init, 3047),
     (sym_variable_access, 7530), (sym_func_call, 2961), (sym_stmt_list, 7970), (sym__stmt, 2024),
     (sym_assign, 3150), (sym_if_stmt, 3150), (sym_case_stmt, 3150), (sym_for_stmt, 3150),
     (sym_while_stmt, 3150), (sym_repeat_stmt, 3150), (sym_raise_stmt, 3150), (sym_try_stmt, 3150),
     (sym_ERR_clause_outside_try, 3150), (sym_begin_path_expression, 2943), (sym_invocation, 2934),
     (sym_any_invocation, 2935), (sym_this_invocation, 2641), (sym_super_invocation, 2641),
     (sym_super_body_invocation, 2935), (sym_path_expression, 2627), (sym_field_expression, 2373),
     (sym_index_expression, 2373), (sym_ladder_diagram, 7970), (sym_fb_diagram, 7970),
     (aux_sym_ERR_fb_variables_after_method_repeat1, 2347), (aux_sym_func_decl_repeat1, 7194),
     (aux_sym_fb_decl_repeat3, 431), (aux_sym_SFC_repeat1, 7612), (aux_sym_stmt_list_repeat1, 2024),
     (aux_sym_ladder_diagram_repeat1, 8009), (aux_sym_fb_diagram_repeat1, 8013),
     (sym_identifier, 298), (aux_sym_ERR_unexpected_this_in_path_token1, 304),
     (aux_sym_ERR_unexpected_super_in_path_token1, 306), (sym_line_comment, 3),
     (anon_sym_LBRACE, 308), (aux_sym_test_pragma_token1, 9), (aux_sym_once_pragma_token1, 11),
     (aux_sym_must_call_pragma_token1, 13), (aux_sym_export_pragma_token1, 15),
     (anon_sym_SEMI, 310), (anon_sym_PERCENT, 312), (aux_sym_input_decls_token1, 314),
     (aux_sym_output_decls_token1, 316), (aux_sym_in_out_decls_token1, 318),
     (aux_sym_var_decls_token1, 320), (aux_sym_temp_var_decls_token1, 322),
     (aux_sym_external_var_decls_token1, 324), (aux_sym_global_var_decls_token1, 326),
     (aux_sym_fb_decl_token4, 2058), (aux_sym_method_decl_token1, 330),
     (aux_sym_prog_access_decls_token1, 332), (aux_sym_initial_step_token1, 334),
     (aux_sym_config_init_token1, 336), (aux_sym__stmt_token1, 340), (aux_sym__stmt_token2, 340),
     (aux_sym__stmt_token3, 340), (aux_sym_if_stmt_token1, 342), (aux_sym_case_stmt_token1, 344),
     (aux_sym_for_stmt_token1, 346), (aux_sym_while_stmt_token1, 348),
     (aux_sym_repeat_stmt_token1, 350), (aux_sym_raise_stmt_token1, 352),
     (aux_sym_try_stmt_token1, 354), (aux_sym_try_stmt_token2, 356),
     (aux_sym_catch_clause_token1, 356), (aux_sym_finally_clause_token1, 356), (sym_ld_rung, 358),
     (sym_fbd_network, 360), (sym_c_style_comment, 3), (sym_pascal_style_comment, 3),
     (sym_pragma, 3)]"

lemma ts_parse_row_864_scan: "row_scan tokens_63_2 0 ts_parse_row_864 = Some (Suc (Suc (Suc (Suc 0))))"
  unfolding ts_parse_row_864_def by simp

text \<open>Lines 152954 to 153066.\<close>

definition ts_parse_row_865 :: parse_row where
  "ts_parse_row_865 =
    [(sym_ERR_assign_func_call, 7530), (sym_ERR_unexpected_this_in_path, 2372),
     (sym_ERR_unexpected_super_in_path, 2372), (sym_ERR_fb_variables_after_method, 1901),
     (sym_ERR_var_access_not_allowed, 3160), (sym_ERR_var_config_not_allowed, 3160),
     (sym_ERR_var_global_not_allowed, 3160), (sym_ERR_method_decl_in_body, 3150),
     (sym_extern_pragma, 7490), (sym_wasm_pragma, 3150), (sym_warn_pragma, 7490),
     (sym_allow_pragma, 3140), (sym_test_pragma, 7490), (sym_once_pragma, 7490),
     (sym_must_call_pragma, 7490), (sym_export_pragma, 7490), (sym_pou_pragma, 7194),
     (sym_direct_variable, 7675), (sym_deref_expression, 2373), (sym_variable, 7599),
     (sym_var_access, 2373), (sym_in_out_decls, 3160), (sym_var_decls, 3160),
     (sym_retain_var_decls, 3160), (sym_temp_var_decls, 3160), (sym_external_var_decls, 3160),
     (sym_global_var_decls, 2947), (sym_loc_partly_var_decl, 3160), (sym__fb_variables, 2343),
     (sym_fb_input_decls, 3160), (sym_fb_output_decls, 3160), (sym_no_retain_var_decls, 3160),
     (sym_fb_body, 8626), (sym_method_decl, 2549), (sym_prog_access_decls, 3043), (sym_SFC, 7970),
     (sym_SFC_network, 7612), (sym_initial_step, 7439), (sym_config_init, 3047),
     (sym_variable_access, 7530), (sym_func_call, 2961), (sym_stmt_list, 7970), (sym__stmt, 2024),
     (sym_assign, 3150), (sym_if_stmt, 3150), (sym_case_stmt, 3150), (sym_for_stmt, 3150),
     (sym_while_stmt, 3150), (sym_repeat_stmt, 3150), (sym_raise_stmt, 3150), (sym_try_stmt, 3150),
     (sym_ERR_clause_outside_try, 3150), (sym_begin_path_expression, 2943), (sym_invocation, 2934),
     (sym_any_invocation, 2935), (sym_this_invocation, 2641), (sym_super_invocation, 2641),
     (sym_super_body_invocation, 2935), (sym_path_expression, 2627), (sym_field_expression, 2373),
     (sym_index_expression, 2373), (sym_ladder_diagram, 7970), (sym_fb_diagram, 7970),
     (aux_sym_ERR_fb_variables_after_method_repeat1, 2343), (aux_sym_func_decl_repeat1, 7194),
     (aux_sym_fb_decl_repeat3, 2549), (aux_sym_SFC_repeat1, 7612),
     (aux_sym_stmt_list_repeat1, 2024), (aux_sym_ladder_diagram_repeat1, 8009),
     (aux_sym_fb_diagram_repeat1, 8013), (sym_identifier, 298),
     (aux_sym_ERR_unexpected_this_in_path_token1, 304),
     (aux_sym_ERR_unexpected_super_in_path_token1, 306), (sym_line_comment, 3),
     (anon_sym_LBRACE, 308), (aux_sym_test_pragma_token1, 9), (aux_sym_once_pragma_token1, 11),
     (aux_sym_must_call_pragma_token1, 13), (aux_sym_export_pragma_token1, 15),
     (anon_sym_SEMI, 310), (anon_sym_PERCENT, 312), (aux_sym_input_decls_token1, 314),
     (aux_sym_output_decls_token1, 316), (aux_sym_in_out_decls_token1, 318),
     (aux_sym_var_decls_token1, 320), (aux_sym_temp_var_decls_token1, 322),
     (aux_sym_external_var_decls_token1, 324), (aux_sym_global_var_decls_token1, 326),
     (aux_sym_fb_decl_token4, 2060), (aux_sym_method_decl_token1, 330),
     (aux_sym_prog_access_decls_token1, 332), (aux_sym_initial_step_token1, 334),
     (aux_sym_config_init_token1, 336), (aux_sym__stmt_token1, 340), (aux_sym__stmt_token2, 340),
     (aux_sym__stmt_token3, 340), (aux_sym_if_stmt_token1, 342), (aux_sym_case_stmt_token1, 344),
     (aux_sym_for_stmt_token1, 346), (aux_sym_while_stmt_token1, 348),
     (aux_sym_repeat_stmt_token1, 350), (aux_sym_raise_stmt_token1, 352),
     (aux_sym_try_stmt_token1, 354), (aux_sym_try_stmt_token2, 356),
     (aux_sym_catch_clause_token1, 356), (aux_sym_finally_clause_token1, 356), (sym_ld_rung, 358),
     (sym_fbd_network, 360), (sym_c_style_comment, 3), (sym_pascal_style_comment, 3),
     (sym_pragma, 3)]"

lemma ts_parse_row_865_scan: "row_scan tokens_63_2 0 ts_parse_row_865 = Some (Suc (Suc (Suc (Suc 0))))"
  unfolding ts_parse_row_865_def by simp

text \<open>Lines 153067 to 153179.\<close>

definition ts_parse_row_866 :: parse_row where
  "ts_parse_row_866 =
    [(sym_ERR_assign_func_call, 7530), (sym_ERR_unexpected_this_in_path, 2372),
     (sym_ERR_unexpected_super_in_path, 2372), (sym_ERR_fb_variables_after_method, 1903),
     (sym_ERR_var_access_not_allowed, 3160), (sym_ERR_var_config_not_allowed, 3160),
     (sym_ERR_var_global_not_allowed, 3160), (sym_ERR_method_decl_in_body, 3150),
     (sym_extern_pragma, 7490), (sym_wasm_pragma, 3150), (sym_warn_pragma, 7490),
     (sym_allow_pragma, 3140), (sym_test_pragma, 7490), (sym_once_pragma, 7490),
     (sym_must_call_pragma, 7490), (sym_export_pragma, 7490), (sym_pou_pragma, 7194),
     (sym_direct_variable, 7675), (sym_deref_expression, 2373), (sym_variable, 7599),
     (sym_var_access, 2373), (sym_in_out_decls, 3160), (sym_var_decls, 3160),
     (sym_retain_var_decls, 3160), (sym_temp_var_decls, 3160), (sym_external_var_decls, 3160),
     (sym_global_var_decls, 2947), (sym_loc_partly_var_decl, 3160), (sym__fb_variables, 2347),
     (sym_fb_input_decls, 3160), (sym_fb_output_decls, 3160), (sym_no_retain_var_decls, 3160),
     (sym_fb_body, 8661), (sym_method_decl, 433), (sym_prog_access_decls, 3043), (sym_SFC, 7970),
     (sym_SFC_network, 7612), (sym_initial_step, 7439), (sym_config_init, 3047),
     (sym_variable_access, 7530), (sym_func_call, 2961), (sym_stmt_list, 7970), (sym__stmt, 2024),
     (sym_assign, 3150), (sym_if_stmt, 3150), (sym_case_stmt, 3150), (sym_for_stmt, 3150),
     (sym_while_stmt, 3150), (sym_repeat_stmt, 3150), (sym_raise_stmt, 3150), (sym_try_stmt, 3150),
     (sym_ERR_clause_outside_try, 3150), (sym_begin_path_expression, 2943), (sym_invocation, 2934),
     (sym_any_invocation, 2935), (sym_this_invocation, 2641), (sym_super_invocation, 2641),
     (sym_super_body_invocation, 2935), (sym_path_expression, 2627), (sym_field_expression, 2373),
     (sym_index_expression, 2373), (sym_ladder_diagram, 7970), (sym_fb_diagram, 7970),
     (aux_sym_ERR_fb_variables_after_method_repeat1, 2347), (aux_sym_func_decl_repeat1, 7194),
     (aux_sym_fb_decl_repeat3, 433), (aux_sym_SFC_repeat1, 7612), (aux_sym_stmt_list_repeat1, 2024),
     (aux_sym_ladder_diagram_repeat1, 8009), (aux_sym_fb_diagram_repeat1, 8013),
     (sym_identifier, 298), (aux_sym_ERR_unexpected_this_in_path_token1, 304),
     (aux_sym_ERR_unexpected_super_in_path_token1, 306), (sym_line_comment, 3),
     (anon_sym_LBRACE, 308), (aux_sym_test_pragma_token1, 9), (aux_sym_once_pragma_token1, 11),
     (aux_sym_must_call_pragma_token1, 13), (aux_sym_export_pragma_token1, 15),
     (anon_sym_SEMI, 310), (anon_sym_PERCENT, 312), (aux_sym_input_decls_token1, 314),
     (aux_sym_output_decls_token1, 316), (aux_sym_in_out_decls_token1, 318),
     (aux_sym_var_decls_token1, 320), (aux_sym_temp_var_decls_token1, 322),
     (aux_sym_external_var_decls_token1, 324), (aux_sym_global_var_decls_token1, 326),
     (aux_sym_fb_decl_token4, 2062), (aux_sym_method_decl_token1, 330),
     (aux_sym_prog_access_decls_token1, 332), (aux_sym_initial_step_token1, 334),
     (aux_sym_config_init_token1, 336), (aux_sym__stmt_token1, 340), (aux_sym__stmt_token2, 340),
     (aux_sym__stmt_token3, 340), (aux_sym_if_stmt_token1, 342), (aux_sym_case_stmt_token1, 344),
     (aux_sym_for_stmt_token1, 346), (aux_sym_while_stmt_token1, 348),
     (aux_sym_repeat_stmt_token1, 350), (aux_sym_raise_stmt_token1, 352),
     (aux_sym_try_stmt_token1, 354), (aux_sym_try_stmt_token2, 356),
     (aux_sym_catch_clause_token1, 356), (aux_sym_finally_clause_token1, 356), (sym_ld_rung, 358),
     (sym_fbd_network, 360), (sym_c_style_comment, 3), (sym_pascal_style_comment, 3),
     (sym_pragma, 3)]"

lemma ts_parse_row_866_scan: "row_scan tokens_63_2 0 ts_parse_row_866 = Some (Suc (Suc (Suc (Suc 0))))"
  unfolding ts_parse_row_866_def by simp

text \<open>Lines 153180 to 153292.\<close>

definition ts_parse_row_867 :: parse_row where
  "ts_parse_row_867 =
    [(sym_ERR_assign_func_call, 7530), (sym_ERR_unexpected_this_in_path, 2372),
     (sym_ERR_unexpected_super_in_path, 2372), (sym_ERR_fb_variables_after_method, 1317),
     (sym_ERR_var_access_not_allowed, 3160), (sym_ERR_var_config_not_allowed, 3160),
     (sym_ERR_var_global_not_allowed, 3160), (sym_ERR_method_decl_in_body, 3150),
     (sym_extern_pragma, 7490), (sym_wasm_pragma, 3150), (sym_warn_pragma, 7490),
     (sym_allow_pragma, 3140), (sym_test_pragma, 7490), (sym_once_pragma, 7490),
     (sym_must_call_pragma, 7490), (sym_export_pragma, 7490), (sym_pou_pragma, 7194),
     (sym_direct_variable, 7675), (sym_deref_expression, 2373), (sym_variable, 7599),
     (sym_var_access, 2373), (sym_in_out_decls, 3160), (sym_var_decls, 3160),
     (sym_retain_var_decls, 3160), (sym_temp_var_decls, 3160), (sym_external_var_decls, 3160),
     (sym_global_var_decls, 2947), (sym_loc_partly_var_decl, 3160), (sym__fb_variables, 2343),
     (sym_fb_input_decls, 3160), (sym_fb_output_decls, 3160), (sym_no_retain_var_decls, 3160),
     (sym_fb_body, 10220), (sym_method_decl, 2549), (sym_prog_access_decls, 3043), (sym_SFC, 7970),
     (sym_SFC_network, 7612), (sym_initial_step, 7439), (sym_config_init, 3047),
     (sym_variable_access, 7530), (sym_func_call, 2961), (sym_stmt_list, 7970), (sym__stmt, 2024),
     (sym_assign, 3150), (sym_if_stmt, 3150), (sym_case_stmt, 3150), (sym_for_stmt, 3150),
     (sym_while_stmt, 3150), (sym_repeat_stmt, 3150), (sym_raise_stmt, 3150), (sym_try_stmt, 3150),
     (sym_ERR_clause_outside_try, 3150), (sym_begin_path_expression, 2943), (sym_invocation, 2934),
     (sym_any_invocation, 2935), (sym_this_invocation, 2641), (sym_super_invocation, 2641),
     (sym_super_body_invocation, 2935), (sym_path_expression, 2627), (sym_field_expression, 2373),
     (sym_index_expression, 2373), (sym_ladder_diagram, 7970), (sym_fb_diagram, 7970),
     (aux_sym_ERR_fb_variables_after_method_repeat1, 2343), (aux_sym_func_decl_repeat1, 7194),
     (aux_sym_fb_decl_repeat3, 2549), (aux_sym_SFC_repeat1, 7612),
     (aux_sym_stmt_list_repeat1, 2024), (aux_sym_ladder_diagram_repeat1, 8009),
     (aux_sym_fb_diagram_repeat1, 8013), (sym_identifier, 298),
     (aux_sym_ERR_unexpected_this_in_path_token1, 304),
     (aux_sym_ERR_unexpected_super_in_path_token1, 306), (sym_line_comment, 3),
     (anon_sym_LBRACE, 308), (aux_sym_test_pragma_token1, 9), (aux_sym_once_pragma_token1, 11),
     (aux_sym_must_call_pragma_token1, 13), (aux_sym_export_pragma_token1, 15),
     (anon_sym_SEMI, 310), (anon_sym_PERCENT, 312), (aux_sym_input_decls_token1, 314),
     (aux_sym_output_decls_token1, 316), (aux_sym_in_out_decls_token1, 318),
     (aux_sym_var_decls_token1, 320), (aux_sym_temp_var_decls_token1, 322),
     (aux_sym_external_var_decls_token1, 324), (aux_sym_global_var_decls_token1, 326),
     (aux_sym_fb_decl_token4, 2064), (aux_sym_method_decl_token1, 330),
     (aux_sym_prog_access_decls_token1, 332), (aux_sym_initial_step_token1, 334),
     (aux_sym_config_init_token1, 336), (aux_sym__stmt_token1, 340), (aux_sym__stmt_token2, 340),
     (aux_sym__stmt_token3, 340), (aux_sym_if_stmt_token1, 342), (aux_sym_case_stmt_token1, 344),
     (aux_sym_for_stmt_token1, 346), (aux_sym_while_stmt_token1, 348),
     (aux_sym_repeat_stmt_token1, 350), (aux_sym_raise_stmt_token1, 352),
     (aux_sym_try_stmt_token1, 354), (aux_sym_try_stmt_token2, 356),
     (aux_sym_catch_clause_token1, 356), (aux_sym_finally_clause_token1, 356), (sym_ld_rung, 358),
     (sym_fbd_network, 360), (sym_c_style_comment, 3), (sym_pascal_style_comment, 3),
     (sym_pragma, 3)]"

lemma ts_parse_row_867_scan: "row_scan tokens_63_2 0 ts_parse_row_867 = Some (Suc (Suc (Suc (Suc 0))))"
  unfolding ts_parse_row_867_def by simp

text \<open>Lines 153293 to 153405.\<close>

definition ts_parse_row_868 :: parse_row where
  "ts_parse_row_868 =
    [(sym_ERR_assign_func_call, 7530), (sym_ERR_unexpected_this_in_path, 2372),
     (sym_ERR_unexpected_super_in_path, 2372), (sym_ERR_fb_variables_after_method, 1905),
     (sym_ERR_var_access_not_allowed, 3160), (sym_ERR_var_config_not_allowed, 3160),
     (sym_ERR_var_global_not_allowed, 3160), (sym_ERR_method_decl_in_body, 3150),
     (sym_extern_pragma, 7490), (sym_wasm_pragma, 3150), (sym_warn_pragma, 7490),
     (sym_allow_pragma, 3140), (sym_test_pragma, 7490), (sym_once_pragma, 7490),
     (sym_must_call_pragma, 7490), (sym_export_pragma, 7490), (sym_pou_pragma, 7194),
     (sym_direct_variable, 7675), (sym_deref_expression, 2373), (sym_variable, 7599),
     (sym_var_access, 2373), (sym_in_out_decls, 3160), (sym_var_decls, 3160),
     (sym_retain_var_decls, 3160), (sym_temp_var_decls, 3160), (sym_external_var_decls, 3160),
     (sym_global_var_decls, 2947), (sym_loc_partly_var_decl, 3160), (sym__fb_variables, 2343),
     (sym_fb_input_decls, 3160), (sym_fb_output_decls, 3160), (sym_no_retain_var_decls, 3160),
     (sym_fb_body, 9235), (sym_method_decl, 2549), (sym_prog_access_decls, 3043), (sym_SFC, 7970),
     (sym_SFC_network, 7612), (sym_initial_step, 7439), (sym_config_init, 3047),
     (sym_variable_access, 7530), (sym_func_call, 2961), (sym_stmt_list, 7970), (sym__stmt, 2024),
     (sym_assign, 3150), (sym_if_stmt, 3150), (sym_case_stmt, 3150), (sym_for_stmt, 3150),
     (sym_while_stmt, 3150), (sym_repeat_stmt, 3150), (sym_raise_stmt, 3150), (sym_try_stmt, 3150),
     (sym_ERR_clause_outside_try, 3150), (sym_begin_path_expression, 2943), (sym_invocation, 2934),
     (sym_any_invocation, 2935), (sym_this_invocation, 2641), (sym_super_invocation, 2641),
     (sym_super_body_invocation, 2935), (sym_path_expression, 2627), (sym_field_expression, 2373),
     (sym_index_expression, 2373), (sym_ladder_diagram, 7970), (sym_fb_diagram, 7970),
     (aux_sym_ERR_fb_variables_after_method_repeat1, 2343), (aux_sym_func_decl_repeat1, 7194),
     (aux_sym_fb_decl_repeat3, 2549), (aux_sym_SFC_repeat1, 7612),
     (aux_sym_stmt_list_repeat1, 2024), (aux_sym_ladder_diagram_repeat1, 8009),
     (aux_sym_fb_diagram_repeat1, 8013), (sym_identifier, 298),
     (aux_sym_ERR_unexpected_this_in_path_token1, 304),
     (aux_sym_ERR_unexpected_super_in_path_token1, 306), (sym_line_comment, 3),
     (anon_sym_LBRACE, 308), (aux_sym_test_pragma_token1, 9), (aux_sym_once_pragma_token1, 11),
     (aux_sym_must_call_pragma_token1, 13), (aux_sym_export_pragma_token1, 15),
     (anon_sym_SEMI, 310), (anon_sym_PERCENT, 312), (aux_sym_input_decls_token1, 314),
     (aux_sym_output_decls_token1, 316), (aux_sym_in_out_decls_token1, 318),
     (aux_sym_var_decls_token1, 320), (aux_sym_temp_var_decls_token1, 322),
     (aux_sym_external_var_decls_token1, 324), (aux_sym_global_var_decls_token1, 326),
     (aux_sym_fb_decl_token4, 2066), (aux_sym_method_decl_token1, 330),
     (aux_sym_prog_access_decls_token1, 332), (aux_sym_initial_step_token1, 334),
     (aux_sym_config_init_token1, 336), (aux_sym__stmt_token1, 340), (aux_sym__stmt_token2, 340),
     (aux_sym__stmt_token3, 340), (aux_sym_if_stmt_token1, 342), (aux_sym_case_stmt_token1, 344),
     (aux_sym_for_stmt_token1, 346), (aux_sym_while_stmt_token1, 348),
     (aux_sym_repeat_stmt_token1, 350), (aux_sym_raise_stmt_token1, 352),
     (aux_sym_try_stmt_token1, 354), (aux_sym_try_stmt_token2, 356),
     (aux_sym_catch_clause_token1, 356), (aux_sym_finally_clause_token1, 356), (sym_ld_rung, 358),
     (sym_fbd_network, 360), (sym_c_style_comment, 3), (sym_pascal_style_comment, 3),
     (sym_pragma, 3)]"

lemma ts_parse_row_868_scan: "row_scan tokens_63_2 0 ts_parse_row_868 = Some (Suc (Suc (Suc (Suc 0))))"
  unfolding ts_parse_row_868_def by simp

text \<open>Lines 153406 to 153518.\<close>

definition ts_parse_row_869 :: parse_row where
  "ts_parse_row_869 =
    [(sym_ERR_assign_func_call, 7530), (sym_ERR_unexpected_this_in_path, 2372),
     (sym_ERR_unexpected_super_in_path, 2372), (sym_ERR_fb_variables_after_method, 1909),
     (sym_ERR_var_access_not_allowed, 3160), (sym_ERR_var_config_not_allowed, 3160),
     (sym_ERR_var_global_not_allowed, 3160), (sym_ERR_method_decl_in_body, 3150),
     (sym_extern_pragma, 7490), (sym_wasm_pragma, 3150), (sym_warn_pragma, 7490),
     (sym_allow_pragma, 3140), (sym_test_pragma, 7490), (sym_once_pragma, 7490),
     (sym_must_call_pragma, 7490), (sym_export_pragma, 7490), (sym_pou_pragma, 7194),
     (sym_direct_variable, 7675), (sym_deref_expression, 2373), (sym_variable, 7599),
     (sym_var_access, 2373), (sym_in_out_decls, 3160), (sym_var_decls, 3160),
     (sym_retain_var_decls, 3160), (sym_temp_var_decls, 3160), (sym_external_var_decls, 3160),
     (sym_global_var_decls, 2947), (sym_loc_partly_var_decl, 3160), (sym__fb_variables, 2343),
     (sym_fb_input_decls, 3160), (sym_fb_output_decls, 3160), (sym_no_retain_var_decls, 3160),
     (sym_fb_body, 8725), (sym_method_decl, 2549), (sym_prog_access_decls, 3043), (sym_SFC, 7970),
     (sym_SFC_network, 7612), (sym_initial_step, 7439), (sym_config_init, 3047),
     (sym_variable_access, 7530), (sym_func_call, 2961), (sym_stmt_list, 7970), (sym__stmt, 2024),
     (sym_assign, 3150), (sym_if_stmt, 3150), (sym_case_stmt, 3150), (sym_for_stmt, 3150),
     (sym_while_stmt, 3150), (sym_repeat_stmt, 3150), (sym_raise_stmt, 3150), (sym_try_stmt, 3150),
     (sym_ERR_clause_outside_try, 3150), (sym_begin_path_expression, 2943), (sym_invocation, 2934),
     (sym_any_invocation, 2935), (sym_this_invocation, 2641), (sym_super_invocation, 2641),
     (sym_super_body_invocation, 2935), (sym_path_expression, 2627), (sym_field_expression, 2373),
     (sym_index_expression, 2373), (sym_ladder_diagram, 7970), (sym_fb_diagram, 7970),
     (aux_sym_ERR_fb_variables_after_method_repeat1, 2343), (aux_sym_func_decl_repeat1, 7194),
     (aux_sym_fb_decl_repeat3, 2549), (aux_sym_SFC_repeat1, 7612),
     (aux_sym_stmt_list_repeat1, 2024), (aux_sym_ladder_diagram_repeat1, 8009),
     (aux_sym_fb_diagram_repeat1, 8013), (sym_identifier, 298),
     (aux_sym_ERR_unexpected_this_in_path_token1, 304),
     (aux_sym_ERR_unexpected_super_in_path_token1, 306), (sym_line_comment, 3),
     (anon_sym_LBRACE, 308), (aux_sym_test_pragma_token1, 9), (aux_sym_once_pragma_token1, 11),
     (aux_sym_must_call_pragma_token1, 13), (aux_sym_export_pragma_token1, 15),
     (anon_sym_SEMI, 310), (anon_sym_PERCENT, 312), (aux_sym_input_decls_token1, 314),
     (aux_sym_output_decls_token1, 316), (aux_sym_in_out_decls_token1, 318),
     (aux_sym_var_decls_token1, 320), (aux_sym_temp_var_decls_token1, 322),
     (aux_sym_external_var_decls_token1, 324), (aux_sym_global_var_decls_token1, 326),
     (aux_sym_fb_decl_token4, 2068), (aux_sym_method_decl_token1, 330),
     (aux_sym_prog_access_decls_token1, 332), (aux_sym_initial_step_token1, 334),
     (aux_sym_config_init_token1, 336), (aux_sym__stmt_token1, 340), (aux_sym__stmt_token2, 340),
     (aux_sym__stmt_token3, 340), (aux_sym_if_stmt_token1, 342), (aux_sym_case_stmt_token1, 344),
     (aux_sym_for_stmt_token1, 346), (aux_sym_while_stmt_token1, 348),
     (aux_sym_repeat_stmt_token1, 350), (aux_sym_raise_stmt_token1, 352),
     (aux_sym_try_stmt_token1, 354), (aux_sym_try_stmt_token2, 356),
     (aux_sym_catch_clause_token1, 356), (aux_sym_finally_clause_token1, 356), (sym_ld_rung, 358),
     (sym_fbd_network, 360), (sym_c_style_comment, 3), (sym_pascal_style_comment, 3),
     (sym_pragma, 3)]"

lemma ts_parse_row_869_scan: "row_scan tokens_63_2 0 ts_parse_row_869 = Some (Suc (Suc (Suc (Suc 0))))"
  unfolding ts_parse_row_869_def by simp

text \<open>Lines 153519 to 153631.\<close>

definition ts_parse_row_870 :: parse_row where
  "ts_parse_row_870 =
    [(sym_ERR_assign_func_call, 7530), (sym_ERR_unexpected_this_in_path, 2372),
     (sym_ERR_unexpected_super_in_path, 2372), (sym_ERR_fb_variables_after_method, 1911),
     (sym_ERR_var_access_not_allowed, 3160), (sym_ERR_var_config_not_allowed, 3160),
     (sym_ERR_var_global_not_allowed, 3160), (sym_ERR_method_decl_in_body, 3150),
     (sym_extern_pragma, 7490), (sym_wasm_pragma, 3150), (sym_warn_pragma, 7490),
     (sym_allow_pragma, 3140), (sym_test_pragma, 7490), (sym_once_pragma, 7490),
     (sym_must_call_pragma, 7490), (sym_export_pragma, 7490), (sym_pou_pragma, 7194),
     (sym_direct_variable, 7675), (sym_deref_expression, 2373), (sym_variable, 7599),
     (sym_var_access, 2373), (sym_in_out_decls, 3160), (sym_var_decls, 3160),
     (sym_retain_var_decls, 3160), (sym_temp_var_decls, 3160), (sym_external_var_decls, 3160),
     (sym_global_var_decls, 2947), (sym_loc_partly_var_decl, 3160), (sym__fb_variables, 2343),
     (sym_fb_input_decls, 3160), (sym_fb_output_decls, 3160), (sym_no_retain_var_decls, 3160),
     (sym_fb_body, 8863), (sym_method_decl, 2549), (sym_prog_access_decls, 3043), (sym_SFC, 7970),
     (sym_SFC_network, 7612), (sym_initial_step, 7439), (sym_config_init, 3047),
     (sym_variable_access, 7530), (sym_func_call, 2961), (sym_stmt_list, 7970), (sym__stmt, 2024),
     (sym_assign, 3150), (sym_if_stmt, 3150), (sym_case_stmt, 3150), (sym_for_stmt, 3150),
     (sym_while_stmt, 3150), (sym_repeat_stmt, 3150), (sym_raise_stmt, 3150), (sym_try_stmt, 3150),
     (sym_ERR_clause_outside_try, 3150), (sym_begin_path_expression, 2943), (sym_invocation, 2934),
     (sym_any_invocation, 2935), (sym_this_invocation, 2641), (sym_super_invocation, 2641),
     (sym_super_body_invocation, 2935), (sym_path_expression, 2627), (sym_field_expression, 2373),
     (sym_index_expression, 2373), (sym_ladder_diagram, 7970), (sym_fb_diagram, 7970),
     (aux_sym_ERR_fb_variables_after_method_repeat1, 2343), (aux_sym_func_decl_repeat1, 7194),
     (aux_sym_fb_decl_repeat3, 2549), (aux_sym_SFC_repeat1, 7612),
     (aux_sym_stmt_list_repeat1, 2024), (aux_sym_ladder_diagram_repeat1, 8009),
     (aux_sym_fb_diagram_repeat1, 8013), (sym_identifier, 298),
     (aux_sym_ERR_unexpected_this_in_path_token1, 304),
     (aux_sym_ERR_unexpected_super_in_path_token1, 306), (sym_line_comment, 3),
     (anon_sym_LBRACE, 308), (aux_sym_test_pragma_token1, 9), (aux_sym_once_pragma_token1, 11),
     (aux_sym_must_call_pragma_token1, 13), (aux_sym_export_pragma_token1, 15),
     (anon_sym_SEMI, 310), (anon_sym_PERCENT, 312), (aux_sym_input_decls_token1, 314),
     (aux_sym_output_decls_token1, 316), (aux_sym_in_out_decls_token1, 318),
     (aux_sym_var_decls_token1, 320), (aux_sym_temp_var_decls_token1, 322),
     (aux_sym_external_var_decls_token1, 324), (aux_sym_global_var_decls_token1, 326),
     (aux_sym_fb_decl_token4, 2070), (aux_sym_method_decl_token1, 330),
     (aux_sym_prog_access_decls_token1, 332), (aux_sym_initial_step_token1, 334),
     (aux_sym_config_init_token1, 336), (aux_sym__stmt_token1, 340), (aux_sym__stmt_token2, 340),
     (aux_sym__stmt_token3, 340), (aux_sym_if_stmt_token1, 342), (aux_sym_case_stmt_token1, 344),
     (aux_sym_for_stmt_token1, 346), (aux_sym_while_stmt_token1, 348),
     (aux_sym_repeat_stmt_token1, 350), (aux_sym_raise_stmt_token1, 352),
     (aux_sym_try_stmt_token1, 354), (aux_sym_try_stmt_token2, 356),
     (aux_sym_catch_clause_token1, 356), (aux_sym_finally_clause_token1, 356), (sym_ld_rung, 358),
     (sym_fbd_network, 360), (sym_c_style_comment, 3), (sym_pascal_style_comment, 3),
     (sym_pragma, 3)]"

lemma ts_parse_row_870_scan: "row_scan tokens_63_2 0 ts_parse_row_870 = Some (Suc (Suc (Suc (Suc 0))))"
  unfolding ts_parse_row_870_def by simp

text \<open>Lines 153632 to 153744.\<close>

definition ts_parse_row_871 :: parse_row where
  "ts_parse_row_871 =
    [(sym_ERR_assign_func_call, 7530), (sym_ERR_unexpected_this_in_path, 2372),
     (sym_ERR_unexpected_super_in_path, 2372), (sym_ERR_fb_variables_after_method, 1912),
     (sym_ERR_var_access_not_allowed, 3160), (sym_ERR_var_config_not_allowed, 3160),
     (sym_ERR_var_global_not_allowed, 3160), (sym_ERR_method_decl_in_body, 3150),
     (sym_extern_pragma, 7490), (sym_wasm_pragma, 3150), (sym_warn_pragma, 7490),
     (sym_allow_pragma, 3140), (sym_test_pragma, 7490), (sym_once_pragma, 7490),
     (sym_must_call_pragma, 7490), (sym_export_pragma, 7490), (sym_pou_pragma, 7194),
     (sym_direct_variable, 7675), (sym_deref_expression, 2373), (sym_variable, 7599),
     (sym_var_access, 2373), (sym_in_out_decls, 3160), (sym_var_decls, 3160),
     (sym_retain_var_decls, 3160), (sym_temp_var_decls, 3160), (sym_external_var_decls, 3160),
     (sym_global_var_decls, 2947), (sym_loc_partly_var_decl, 3160), (sym__fb_variables, 2343),
     (sym_fb_input_decls, 3160), (sym_fb_output_decls, 3160), (sym_no_retain_var_decls, 3160),
     (sym_fb_body, 8949), (sym_method_decl, 2549), (sym_prog_access_decls, 3043), (sym_SFC, 7970),
     (sym_SFC_network, 7612), (sym_initial_step, 7439), (sym_config_init, 3047),
     (sym_variable_access, 7530), (sym_func_call, 2961), (sym_stmt_list, 7970), (sym__stmt, 2024),
     (sym_assign, 3150), (sym_if_stmt, 3150), (sym_case_stmt, 3150), (sym_for_stmt, 3150),
     (sym_while_stmt, 3150), (sym_repeat_stmt, 3150), (sym_raise_stmt, 3150), (sym_try_stmt, 3150),
     (sym_ERR_clause_outside_try, 3150), (sym_begin_path_expression, 2943), (sym_invocation, 2934),
     (sym_any_invocation, 2935), (sym_this_invocation, 2641), (sym_super_invocation, 2641),
     (sym_super_body_invocation, 2935), (sym_path_expression, 2627), (sym_field_expression, 2373),
     (sym_index_expression, 2373), (sym_ladder_diagram, 7970), (sym_fb_diagram, 7970),
     (aux_sym_ERR_fb_variables_after_method_repeat1, 2343), (aux_sym_func_decl_repeat1, 7194),
     (aux_sym_fb_decl_repeat3, 2549), (aux_sym_SFC_repeat1, 7612),
     (aux_sym_stmt_list_repeat1, 2024), (aux_sym_ladder_diagram_repeat1, 8009),
     (aux_sym_fb_diagram_repeat1, 8013), (sym_identifier, 298),
     (aux_sym_ERR_unexpected_this_in_path_token1, 304),
     (aux_sym_ERR_unexpected_super_in_path_token1, 306), (sym_line_comment, 3),
     (anon_sym_LBRACE, 308), (aux_sym_test_pragma_token1, 9), (aux_sym_once_pragma_token1, 11),
     (aux_sym_must_call_pragma_token1, 13), (aux_sym_export_pragma_token1, 15),
     (anon_sym_SEMI, 310), (anon_sym_PERCENT, 312), (aux_sym_input_decls_token1, 314),
     (aux_sym_output_decls_token1, 316), (aux_sym_in_out_decls_token1, 318),
     (aux_sym_var_decls_token1, 320), (aux_sym_temp_var_decls_token1, 322),
     (aux_sym_external_var_decls_token1, 324), (aux_sym_global_var_decls_token1, 326),
     (aux_sym_fb_decl_token4, 2072), (aux_sym_method_decl_token1, 330),
     (aux_sym_prog_access_decls_token1, 332), (aux_sym_initial_step_token1, 334),
     (aux_sym_config_init_token1, 336), (aux_sym__stmt_token1, 340), (aux_sym__stmt_token2, 340),
     (aux_sym__stmt_token3, 340), (aux_sym_if_stmt_token1, 342), (aux_sym_case_stmt_token1, 344),
     (aux_sym_for_stmt_token1, 346), (aux_sym_while_stmt_token1, 348),
     (aux_sym_repeat_stmt_token1, 350), (aux_sym_raise_stmt_token1, 352),
     (aux_sym_try_stmt_token1, 354), (aux_sym_try_stmt_token2, 356),
     (aux_sym_catch_clause_token1, 356), (aux_sym_finally_clause_token1, 356), (sym_ld_rung, 358),
     (sym_fbd_network, 360), (sym_c_style_comment, 3), (sym_pascal_style_comment, 3),
     (sym_pragma, 3)]"

lemma ts_parse_row_871_scan: "row_scan tokens_63_2 0 ts_parse_row_871 = Some (Suc (Suc (Suc (Suc 0))))"
  unfolding ts_parse_row_871_def by simp

text \<open>Lines 153745 to 153857.\<close>

definition ts_parse_row_872 :: parse_row where
  "ts_parse_row_872 =
    [(sym_ERR_assign_func_call, 7530), (sym_ERR_unexpected_this_in_path, 2372),
     (sym_ERR_unexpected_super_in_path, 2372), (sym_ERR_fb_variables_after_method, 1913),
     (sym_ERR_var_access_not_allowed, 3160), (sym_ERR_var_config_not_allowed, 3160),
     (sym_ERR_var_global_not_allowed, 3160), (sym_ERR_method_decl_in_body, 3150),
     (sym_extern_pragma, 7490), (sym_wasm_pragma, 3150), (sym_warn_pragma, 7490),
     (sym_allow_pragma, 3140), (sym_test_pragma, 7490), (sym_once_pragma, 7490),
     (sym_must_call_pragma, 7490), (sym_export_pragma, 7490), (sym_pou_pragma, 7194),
     (sym_direct_variable, 7675), (sym_deref_expression, 2373), (sym_variable, 7599),
     (sym_var_access, 2373), (sym_in_out_decls, 3160), (sym_var_decls, 3160),
     (sym_retain_var_decls, 3160), (sym_temp_var_decls, 3160), (sym_external_var_decls, 3160),
     (sym_global_var_decls, 2947), (sym_loc_partly_var_decl, 3160), (sym__fb_variables, 2347),
     (sym_fb_input_decls, 3160), (sym_fb_output_decls, 3160), (sym_no_retain_var_decls, 3160),
     (sym_fb_body, 9001), (sym_method_decl, 439), (sym_prog_access_decls, 3043), (sym_SFC, 7970),
     (sym_SFC_network, 7612), (sym_initial_step, 7439), (sym_config_init, 3047),
     (sym_variable_access, 7530), (sym_func_call, 2961), (sym_stmt_list, 7970), (sym__stmt, 2024),
     (sym_assign, 3150), (sym_if_stmt, 3150), (sym_case_stmt, 3150), (sym_for_stmt, 3150),
     (sym_while_stmt, 3150), (sym_repeat_stmt, 3150), (sym_raise_stmt, 3150), (sym_try_stmt, 3150),
     (sym_ERR_clause_outside_try, 3150), (sym_begin_path_expression, 2943), (sym_invocation, 2934),
     (sym_any_invocation, 2935), (sym_this_invocation, 2641), (sym_super_invocation, 2641),
     (sym_super_body_invocation, 2935), (sym_path_expression, 2627), (sym_field_expression, 2373),
     (sym_index_expression, 2373), (sym_ladder_diagram, 7970), (sym_fb_diagram, 7970),
     (aux_sym_ERR_fb_variables_after_method_repeat1, 2347), (aux_sym_func_decl_repeat1, 7194),
     (aux_sym_fb_decl_repeat3, 439), (aux_sym_SFC_repeat1, 7612), (aux_sym_stmt_list_repeat1, 2024),
     (aux_sym_ladder_diagram_repeat1, 8009), (aux_sym_fb_diagram_repeat1, 8013),
     (sym_identifier, 298), (aux_sym_ERR_unexpected_this_in_path_token1, 304),
     (aux_sym_ERR_unexpected_super_in_path_token1, 306), (sym_line_comment, 3),
     (anon_sym_LBRACE, 308), (aux_sym_test_pragma_token1, 9), (aux_sym_once_pragma_token1, 11),
     (aux_sym_must_call_pragma_token1, 13), (aux_sym_export_pragma_token1, 15),
     (anon_sym_SEMI, 310), (anon_sym_PERCENT, 312), (aux_sym_input_decls_token1, 314),
     (aux_sym_output_decls_token1, 316), (aux_sym_in_out_decls_token1, 318),
     (aux_sym_var_decls_token1, 320), (aux_sym_temp_var_decls_token1, 322),
     (aux_sym_external_var_decls_token1, 324), (aux_sym_global_var_decls_token1, 326),
     (aux_sym_fb_decl_token4, 2074), (aux_sym_method_decl_token1, 330),
     (aux_sym_prog_access_decls_token1, 332), (aux_sym_initial_step_token1, 334),
     (aux_sym_config_init_token1, 336), (aux_sym__stmt_token1, 340), (aux_sym__stmt_token2, 340),
     (aux_sym__stmt_token3, 340), (aux_sym_if_stmt_token1, 342), (aux_sym_case_stmt_token1, 344),
     (aux_sym_for_stmt_token1, 346), (aux_sym_while_stmt_token1, 348),
     (aux_sym_repeat_stmt_token1, 350), (aux_sym_raise_stmt_token1, 352),
     (aux_sym_try_stmt_token1, 354), (aux_sym_try_stmt_token2, 356),
     (aux_sym_catch_clause_token1, 356), (aux_sym_finally_clause_token1, 356), (sym_ld_rung, 358),
     (sym_fbd_network, 360), (sym_c_style_comment, 3), (sym_pascal_style_comment, 3),
     (sym_pragma, 3)]"

lemma ts_parse_row_872_scan: "row_scan tokens_63_2 0 ts_parse_row_872 = Some (Suc (Suc (Suc (Suc 0))))"
  unfolding ts_parse_row_872_def by simp

text \<open>Lines 153858 to 153970.\<close>

definition ts_parse_row_873 :: parse_row where
  "ts_parse_row_873 =
    [(sym_ERR_assign_func_call, 7530), (sym_ERR_unexpected_this_in_path, 2372),
     (sym_ERR_unexpected_super_in_path, 2372), (sym_ERR_fb_variables_after_method, 1915),
     (sym_ERR_var_access_not_allowed, 3160), (sym_ERR_var_config_not_allowed, 3160),
     (sym_ERR_var_global_not_allowed, 3160), (sym_ERR_method_decl_in_body, 3150),
     (sym_extern_pragma, 7490), (sym_wasm_pragma, 3150), (sym_warn_pragma, 7490),
     (sym_allow_pragma, 3140), (sym_test_pragma, 7490), (sym_once_pragma, 7490),
     (sym_must_call_pragma, 7490), (sym_export_pragma, 7490), (sym_pou_pragma, 7194),
     (sym_direct_variable, 7675), (sym_deref_expression, 2373), (sym_variable, 7599),
     (sym_var_access, 2373), (sym_in_out_decls, 3160), (sym_var_decls, 3160),
     (sym_retain_var_decls, 3160), (sym_temp_var_decls, 3160), (sym_external_var_decls, 3160),
     (sym_global_var_decls, 2947), (sym_loc_partly_var_decl, 3160), (sym__fb_variables, 2343),
     (sym_fb_input_decls, 3160), (sym_fb_output_decls, 3160), (sym_no_retain_var_decls, 3160),
     (sym_fb_body, 9027), (sym_method_decl, 2549), (sym_prog_access_decls, 3043), (sym_SFC, 7970),
     (sym_SFC_network, 7612), (sym_initial_step, 7439), (sym_config_init, 3047),
     (sym_variable_access, 7530), (sym_func_call, 2961), (sym_stmt_list, 7970), (sym__stmt, 2024),
     (sym_assign, 3150), (sym_if_stmt, 3150), (sym_case_stmt, 3150), (sym_for_stmt, 3150),
     (sym_while_stmt, 3150), (sym_repeat_stmt, 3150), (sym_raise_stmt, 3150), (sym_try_stmt, 3150),
     (sym_ERR_clause_outside_try, 3150), (sym_begin_path_expression, 2943), (sym_invocation, 2934),
     (sym_any_invocation, 2935), (sym_this_invocation, 2641), (sym_super_invocation, 2641),
     (sym_super_body_invocation, 2935), (sym_path_expression, 2627), (sym_field_expression, 2373),
     (sym_index_expression, 2373), (sym_ladder_diagram, 7970), (sym_fb_diagram, 7970),
     (aux_sym_ERR_fb_variables_after_method_repeat1, 2343), (aux_sym_func_decl_repeat1, 7194),
     (aux_sym_fb_decl_repeat3, 2549), (aux_sym_SFC_repeat1, 7612),
     (aux_sym_stmt_list_repeat1, 2024), (aux_sym_ladder_diagram_repeat1, 8009),
     (aux_sym_fb_diagram_repeat1, 8013), (sym_identifier, 298),
     (aux_sym_ERR_unexpected_this_in_path_token1, 304),
     (aux_sym_ERR_unexpected_super_in_path_token1, 306), (sym_line_comment, 3),
     (anon_sym_LBRACE, 308), (aux_sym_test_pragma_token1, 9), (aux_sym_once_pragma_token1, 11),
     (aux_sym_must_call_pragma_token1, 13), (aux_sym_export_pragma_token1, 15),
     (anon_sym_SEMI, 310), (anon_sym_PERCENT, 312), (aux_sym_input_decls_token1, 314),
     (aux_sym_output_decls_token1, 316), (aux_sym_in_out_decls_token1, 318),
     (aux_sym_var_decls_token1, 320), (aux_sym_temp_var_decls_token1, 322),
     (aux_sym_external_var_decls_token1, 324), (aux_sym_global_var_decls_token1, 326),
     (aux_sym_fb_decl_token4, 2076), (aux_sym_method_decl_token1, 330),
     (aux_sym_prog_access_decls_token1, 332), (aux_sym_initial_step_token1, 334),
     (aux_sym_config_init_token1, 336), (aux_sym__stmt_token1, 340), (aux_sym__stmt_token2, 340),
     (aux_sym__stmt_token3, 340), (aux_sym_if_stmt_token1, 342), (aux_sym_case_stmt_token1, 344),
     (aux_sym_for_stmt_token1, 346), (aux_sym_while_stmt_token1, 348),
     (aux_sym_repeat_stmt_token1, 350), (aux_sym_raise_stmt_token1, 352),
     (aux_sym_try_stmt_token1, 354), (aux_sym_try_stmt_token2, 356),
     (aux_sym_catch_clause_token1, 356), (aux_sym_finally_clause_token1, 356), (sym_ld_rung, 358),
     (sym_fbd_network, 360), (sym_c_style_comment, 3), (sym_pascal_style_comment, 3),
     (sym_pragma, 3)]"

lemma ts_parse_row_873_scan: "row_scan tokens_63_2 0 ts_parse_row_873 = Some (Suc (Suc (Suc (Suc 0))))"
  unfolding ts_parse_row_873_def by simp

text \<open>Lines 153971 to 154083.\<close>

definition ts_parse_row_874 :: parse_row where
  "ts_parse_row_874 =
    [(sym_ERR_assign_func_call, 7530), (sym_ERR_unexpected_this_in_path, 2372),
     (sym_ERR_unexpected_super_in_path, 2372), (sym_ERR_fb_variables_after_method, 1916),
     (sym_ERR_var_access_not_allowed, 3160), (sym_ERR_var_config_not_allowed, 3160),
     (sym_ERR_var_global_not_allowed, 3160), (sym_ERR_method_decl_in_body, 3150),
     (sym_extern_pragma, 7490), (sym_wasm_pragma, 3150), (sym_warn_pragma, 7490),
     (sym_allow_pragma, 3140), (sym_test_pragma, 7490), (sym_once_pragma, 7490),
     (sym_must_call_pragma, 7490), (sym_export_pragma, 7490), (sym_pou_pragma, 7194),
     (sym_direct_variable, 7675), (sym_deref_expression, 2373), (sym_variable, 7599),
     (sym_var_access, 2373), (sym_in_out_decls, 3160), (sym_var_decls, 3160),
     (sym_retain_var_decls, 3160), (sym_temp_var_decls, 3160), (sym_external_var_decls, 3160),
     (sym_global_var_decls, 2947), (sym_loc_partly_var_decl, 3160), (sym__fb_variables, 2347),
     (sym_fb_input_decls, 3160), (sym_fb_output_decls, 3160), (sym_no_retain_var_decls, 3160),
     (sym_fb_body, 9056), (sym_method_decl, 440), (sym_prog_access_decls, 3043), (sym_SFC, 7970),
     (sym_SFC_network, 7612), (sym_initial_step, 7439), (sym_config_init, 3047),
     (sym_variable_access, 7530), (sym_func_call, 2961), (sym_stmt_list, 7970), (sym__stmt, 2024),
     (sym_assign, 3150), (sym_if_stmt, 3150), (sym_case_stmt, 3150), (sym_for_stmt, 3150),
     (sym_while_stmt, 3150), (sym_repeat_stmt, 3150), (sym_raise_stmt, 3150), (sym_try_stmt, 3150),
     (sym_ERR_clause_outside_try, 3150), (sym_begin_path_expression, 2943), (sym_invocation, 2934),
     (sym_any_invocation, 2935), (sym_this_invocation, 2641), (sym_super_invocation, 2641),
     (sym_super_body_invocation, 2935), (sym_path_expression, 2627), (sym_field_expression, 2373),
     (sym_index_expression, 2373), (sym_ladder_diagram, 7970), (sym_fb_diagram, 7970),
     (aux_sym_ERR_fb_variables_after_method_repeat1, 2347), (aux_sym_func_decl_repeat1, 7194),
     (aux_sym_fb_decl_repeat3, 440), (aux_sym_SFC_repeat1, 7612), (aux_sym_stmt_list_repeat1, 2024),
     (aux_sym_ladder_diagram_repeat1, 8009), (aux_sym_fb_diagram_repeat1, 8013),
     (sym_identifier, 298), (aux_sym_ERR_unexpected_this_in_path_token1, 304),
     (aux_sym_ERR_unexpected_super_in_path_token1, 306), (sym_line_comment, 3),
     (anon_sym_LBRACE, 308), (aux_sym_test_pragma_token1, 9), (aux_sym_once_pragma_token1, 11),
     (aux_sym_must_call_pragma_token1, 13), (aux_sym_export_pragma_token1, 15),
     (anon_sym_SEMI, 310), (anon_sym_PERCENT, 312), (aux_sym_input_decls_token1, 314),
     (aux_sym_output_decls_token1, 316), (aux_sym_in_out_decls_token1, 318),
     (aux_sym_var_decls_token1, 320), (aux_sym_temp_var_decls_token1, 322),
     (aux_sym_external_var_decls_token1, 324), (aux_sym_global_var_decls_token1, 326),
     (aux_sym_fb_decl_token4, 2078), (aux_sym_method_decl_token1, 330),
     (aux_sym_prog_access_decls_token1, 332), (aux_sym_initial_step_token1, 334),
     (aux_sym_config_init_token1, 336), (aux_sym__stmt_token1, 340), (aux_sym__stmt_token2, 340),
     (aux_sym__stmt_token3, 340), (aux_sym_if_stmt_token1, 342), (aux_sym_case_stmt_token1, 344),
     (aux_sym_for_stmt_token1, 346), (aux_sym_while_stmt_token1, 348),
     (aux_sym_repeat_stmt_token1, 350), (aux_sym_raise_stmt_token1, 352),
     (aux_sym_try_stmt_token1, 354), (aux_sym_try_stmt_token2, 356),
     (aux_sym_catch_clause_token1, 356), (aux_sym_finally_clause_token1, 356), (sym_ld_rung, 358),
     (sym_fbd_network, 360), (sym_c_style_comment, 3), (sym_pascal_style_comment, 3),
     (sym_pragma, 3)]"

lemma ts_parse_row_874_scan: "row_scan tokens_63_2 0 ts_parse_row_874 = Some (Suc (Suc (Suc (Suc 0))))"
  unfolding ts_parse_row_874_def by simp

text \<open>Lines 154084 to 154196.\<close>

definition ts_parse_row_875 :: parse_row where
  "ts_parse_row_875 =
    [(sym_ERR_assign_func_call, 7530), (sym_ERR_unexpected_this_in_path, 2372),
     (sym_ERR_unexpected_super_in_path, 2372), (sym_ERR_fb_variables_after_method, 1321),
     (sym_ERR_var_access_not_allowed, 3160), (sym_ERR_var_config_not_allowed, 3160),
     (sym_ERR_var_global_not_allowed, 3160), (sym_ERR_method_decl_in_body, 3150),
     (sym_extern_pragma, 7490), (sym_wasm_pragma, 3150), (sym_warn_pragma, 7490),
     (sym_allow_pragma, 3140), (sym_test_pragma, 7490), (sym_once_pragma, 7490),
     (sym_must_call_pragma, 7490), (sym_export_pragma, 7490), (sym_pou_pragma, 7194),
     (sym_direct_variable, 7675), (sym_deref_expression, 2373), (sym_variable, 7599),
     (sym_var_access, 2373), (sym_in_out_decls, 3160), (sym_var_decls, 3160),
     (sym_retain_var_decls, 3160), (sym_temp_var_decls, 3160), (sym_external_var_decls, 3160),
     (sym_global_var_decls, 2947), (sym_loc_partly_var_decl, 3160), (sym__fb_variables, 2343),
     (sym_fb_input_decls, 3160), (sym_fb_output_decls, 3160), (sym_no_retain_var_decls, 3160),
     (sym_fb_body, 10341), (sym_method_decl, 2549), (sym_prog_access_decls, 3043), (sym_SFC, 7970),
     (sym_SFC_network, 7612), (sym_initial_step, 7439), (sym_config_init, 3047),
     (sym_variable_access, 7530), (sym_func_call, 2961), (sym_stmt_list, 7970), (sym__stmt, 2024),
     (sym_assign, 3150), (sym_if_stmt, 3150), (sym_case_stmt, 3150), (sym_for_stmt, 3150),
     (sym_while_stmt, 3150), (sym_repeat_stmt, 3150), (sym_raise_stmt, 3150), (sym_try_stmt, 3150),
     (sym_ERR_clause_outside_try, 3150), (sym_begin_path_expression, 2943), (sym_invocation, 2934),
     (sym_any_invocation, 2935), (sym_this_invocation, 2641), (sym_super_invocation, 2641),
     (sym_super_body_invocation, 2935), (sym_path_expression, 2627), (sym_field_expression, 2373),
     (sym_index_expression, 2373), (sym_ladder_diagram, 7970), (sym_fb_diagram, 7970),
     (aux_sym_ERR_fb_variables_after_method_repeat1, 2343), (aux_sym_func_decl_repeat1, 7194),
     (aux_sym_fb_decl_repeat3, 2549), (aux_sym_SFC_repeat1, 7612),
     (aux_sym_stmt_list_repeat1, 2024), (aux_sym_ladder_diagram_repeat1, 8009),
     (aux_sym_fb_diagram_repeat1, 8013), (sym_identifier, 298),
     (aux_sym_ERR_unexpected_this_in_path_token1, 304),
     (aux_sym_ERR_unexpected_super_in_path_token1, 306), (sym_line_comment, 3),
     (anon_sym_LBRACE, 308), (aux_sym_test_pragma_token1, 9), (aux_sym_once_pragma_token1, 11),
     (aux_sym_must_call_pragma_token1, 13), (aux_sym_export_pragma_token1, 15),
     (anon_sym_SEMI, 310), (anon_sym_PERCENT, 312), (aux_sym_input_decls_token1, 314),
     (aux_sym_output_decls_token1, 316), (aux_sym_in_out_decls_token1, 318),
     (aux_sym_var_decls_token1, 320), (aux_sym_temp_var_decls_token1, 322),
     (aux_sym_external_var_decls_token1, 324), (aux_sym_global_var_decls_token1, 326),
     (aux_sym_fb_decl_token4, 2080), (aux_sym_method_decl_token1, 330),
     (aux_sym_prog_access_decls_token1, 332), (aux_sym_initial_step_token1, 334),
     (aux_sym_config_init_token1, 336), (aux_sym__stmt_token1, 340), (aux_sym__stmt_token2, 340),
     (aux_sym__stmt_token3, 340), (aux_sym_if_stmt_token1, 342), (aux_sym_case_stmt_token1, 344),
     (aux_sym_for_stmt_token1, 346), (aux_sym_while_stmt_token1, 348),
     (aux_sym_repeat_stmt_token1, 350), (aux_sym_raise_stmt_token1, 352),
     (aux_sym_try_stmt_token1, 354), (aux_sym_try_stmt_token2, 356),
     (aux_sym_catch_clause_token1, 356), (aux_sym_finally_clause_token1, 356), (sym_ld_rung, 358),
     (sym_fbd_network, 360), (sym_c_style_comment, 3), (sym_pascal_style_comment, 3),
     (sym_pragma, 3)]"

lemma ts_parse_row_875_scan: "row_scan tokens_63_2 0 ts_parse_row_875 = Some (Suc (Suc (Suc (Suc 0))))"
  unfolding ts_parse_row_875_def by simp

text \<open>Lines 154197 to 154309.\<close>

definition ts_parse_row_876 :: parse_row where
  "ts_parse_row_876 =
    [(sym_ERR_assign_func_call, 7530), (sym_ERR_unexpected_this_in_path, 2372),
     (sym_ERR_unexpected_super_in_path, 2372), (sym_ERR_fb_variables_after_method, 1919),
     (sym_ERR_var_access_not_allowed, 3160), (sym_ERR_var_config_not_allowed, 3160),
     (sym_ERR_var_global_not_allowed, 3160), (sym_ERR_method_decl_in_body, 3150),
     (sym_extern_pragma, 7490), (sym_wasm_pragma, 3150), (sym_warn_pragma, 7490),
     (sym_allow_pragma, 3140), (sym_test_pragma, 7490), (sym_once_pragma, 7490),
     (sym_must_call_pragma, 7490), (sym_export_pragma, 7490), (sym_pou_pragma, 7194),
     (sym_direct_variable, 7675), (sym_deref_expression, 2373), (sym_variable, 7599),
     (sym_var_access, 2373), (sym_in_out_decls, 3160), (sym_var_decls, 3160),
     (sym_retain_var_decls, 3160), (sym_temp_var_decls, 3160), (sym_external_var_decls, 3160),
     (sym_global_var_decls, 2947), (sym_loc_partly_var_decl, 3160), (sym__fb_variables, 2343),
     (sym_fb_input_decls, 3160), (sym_fb_output_decls, 3160), (sym_no_retain_var_decls, 3160),
     (sym_fb_body, 9139), (sym_method_decl, 2549), (sym_prog_access_decls, 3043), (sym_SFC, 7970),
     (sym_SFC_network, 7612), (sym_initial_step, 7439), (sym_config_init, 3047),
     (sym_variable_access, 7530), (sym_func_call, 2961), (sym_stmt_list, 7970), (sym__stmt, 2024),
     (sym_assign, 3150), (sym_if_stmt, 3150), (sym_case_stmt, 3150), (sym_for_stmt, 3150),
     (sym_while_stmt, 3150), (sym_repeat_stmt, 3150), (sym_raise_stmt, 3150), (sym_try_stmt, 3150),
     (sym_ERR_clause_outside_try, 3150), (sym_begin_path_expression, 2943), (sym_invocation, 2934),
     (sym_any_invocation, 2935), (sym_this_invocation, 2641), (sym_super_invocation, 2641),
     (sym_super_body_invocation, 2935), (sym_path_expression, 2627), (sym_field_expression, 2373),
     (sym_index_expression, 2373), (sym_ladder_diagram, 7970), (sym_fb_diagram, 7970),
     (aux_sym_ERR_fb_variables_after_method_repeat1, 2343), (aux_sym_func_decl_repeat1, 7194),
     (aux_sym_fb_decl_repeat3, 2549), (aux_sym_SFC_repeat1, 7612),
     (aux_sym_stmt_list_repeat1, 2024), (aux_sym_ladder_diagram_repeat1, 8009),
     (aux_sym_fb_diagram_repeat1, 8013), (sym_identifier, 298),
     (aux_sym_ERR_unexpected_this_in_path_token1, 304),
     (aux_sym_ERR_unexpected_super_in_path_token1, 306), (sym_line_comment, 3),
     (anon_sym_LBRACE, 308), (aux_sym_test_pragma_token1, 9), (aux_sym_once_pragma_token1, 11),
     (aux_sym_must_call_pragma_token1, 13), (aux_sym_export_pragma_token1, 15),
     (anon_sym_SEMI, 310), (anon_sym_PERCENT, 312), (aux_sym_input_decls_token1, 314),
     (aux_sym_output_decls_token1, 316), (aux_sym_in_out_decls_token1, 318),
     (aux_sym_var_decls_token1, 320), (aux_sym_temp_var_decls_token1, 322),
     (aux_sym_external_var_decls_token1, 324), (aux_sym_global_var_decls_token1, 326),
     (aux_sym_fb_decl_token4, 2082), (aux_sym_method_decl_token1, 330),
     (aux_sym_prog_access_decls_token1, 332), (aux_sym_initial_step_token1, 334),
     (aux_sym_config_init_token1, 336), (aux_sym__stmt_token1, 340), (aux_sym__stmt_token2, 340),
     (aux_sym__stmt_token3, 340), (aux_sym_if_stmt_token1, 342), (aux_sym_case_stmt_token1, 344),
     (aux_sym_for_stmt_token1, 346), (aux_sym_while_stmt_token1, 348),
     (aux_sym_repeat_stmt_token1, 350), (aux_sym_raise_stmt_token1, 352),
     (aux_sym_try_stmt_token1, 354), (aux_sym_try_stmt_token2, 356),
     (aux_sym_catch_clause_token1, 356), (aux_sym_finally_clause_token1, 356), (sym_ld_rung, 358),
     (sym_fbd_network, 360), (sym_c_style_comment, 3), (sym_pascal_style_comment, 3),
     (sym_pragma, 3)]"

lemma ts_parse_row_876_scan: "row_scan tokens_63_2 0 ts_parse_row_876 = Some (Suc (Suc (Suc (Suc 0))))"
  unfolding ts_parse_row_876_def by simp

text \<open>Lines 154310 to 154422.\<close>

definition ts_parse_row_877 :: parse_row where
  "ts_parse_row_877 =
    [(sym_ERR_assign_func_call, 7530), (sym_ERR_unexpected_this_in_path, 2372),
     (sym_ERR_unexpected_super_in_path, 2372), (sym_ERR_fb_variables_after_method, 1325),
     (sym_ERR_var_access_not_allowed, 3160), (sym_ERR_var_config_not_allowed, 3160),
     (sym_ERR_var_global_not_allowed, 3160), (sym_ERR_method_decl_in_body, 3150),
     (sym_extern_pragma, 7490), (sym_wasm_pragma, 3150), (sym_warn_pragma, 7490),
     (sym_allow_pragma, 3140), (sym_test_pragma, 7490), (sym_once_pragma, 7490),
     (sym_must_call_pragma, 7490), (sym_export_pragma, 7490), (sym_pou_pragma, 7194),
     (sym_direct_variable, 7675), (sym_deref_expression, 2373), (sym_variable, 7599),
     (sym_var_access, 2373), (sym_in_out_decls, 3160), (sym_var_decls, 3160),
     (sym_retain_var_decls, 3160), (sym_temp_var_decls, 3160), (sym_external_var_decls, 3160),
     (sym_global_var_decls, 2947), (sym_loc_partly_var_decl, 3160), (sym__fb_variables, 2347),
     (sym_fb_input_decls, 3160), (sym_fb_output_decls, 3160), (sym_no_retain_var_decls, 3160),
     (sym_fb_body, 10364), (sym_method_decl, 848), (sym_prog_access_decls, 3043), (sym_SFC, 7970),
     (sym_SFC_network, 7612), (sym_initial_step, 7439), (sym_config_init, 3047),
     (sym_variable_access, 7530), (sym_func_call, 2961), (sym_stmt_list, 7970), (sym__stmt, 2024),
     (sym_assign, 3150), (sym_if_stmt, 3150), (sym_case_stmt, 3150), (sym_for_stmt, 3150),
     (sym_while_stmt, 3150), (sym_repeat_stmt, 3150), (sym_raise_stmt, 3150), (sym_try_stmt, 3150),
     (sym_ERR_clause_outside_try, 3150), (sym_begin_path_expression, 2943), (sym_invocation, 2934),
     (sym_any_invocation, 2935), (sym_this_invocation, 2641), (sym_super_invocation, 2641),
     (sym_super_body_invocation, 2935), (sym_path_expression, 2627), (sym_field_expression, 2373),
     (sym_index_expression, 2373), (sym_ladder_diagram, 7970), (sym_fb_diagram, 7970),
     (aux_sym_ERR_fb_variables_after_method_repeat1, 2347), (aux_sym_func_decl_repeat1, 7194),
     (aux_sym_fb_decl_repeat3, 848), (aux_sym_SFC_repeat1, 7612), (aux_sym_stmt_list_repeat1, 2024),
     (aux_sym_ladder_diagram_repeat1, 8009), (aux_sym_fb_diagram_repeat1, 8013),
     (sym_identifier, 298), (aux_sym_ERR_unexpected_this_in_path_token1, 304),
     (aux_sym_ERR_unexpected_super_in_path_token1, 306), (sym_line_comment, 3),
     (anon_sym_LBRACE, 308), (aux_sym_test_pragma_token1, 9), (aux_sym_once_pragma_token1, 11),
     (aux_sym_must_call_pragma_token1, 13), (aux_sym_export_pragma_token1, 15),
     (anon_sym_SEMI, 310), (anon_sym_PERCENT, 312), (aux_sym_input_decls_token1, 314),
     (aux_sym_output_decls_token1, 316), (aux_sym_in_out_decls_token1, 318),
     (aux_sym_var_decls_token1, 320), (aux_sym_temp_var_decls_token1, 322),
     (aux_sym_external_var_decls_token1, 324), (aux_sym_global_var_decls_token1, 326),
     (aux_sym_fb_decl_token4, 2084), (aux_sym_method_decl_token1, 330),
     (aux_sym_prog_access_decls_token1, 332), (aux_sym_initial_step_token1, 334),
     (aux_sym_config_init_token1, 336), (aux_sym__stmt_token1, 340), (aux_sym__stmt_token2, 340),
     (aux_sym__stmt_token3, 340), (aux_sym_if_stmt_token1, 342), (aux_sym_case_stmt_token1, 344),
     (aux_sym_for_stmt_token1, 346), (aux_sym_while_stmt_token1, 348),
     (aux_sym_repeat_stmt_token1, 350), (aux_sym_raise_stmt_token1, 352),
     (aux_sym_try_stmt_token1, 354), (aux_sym_try_stmt_token2, 356),
     (aux_sym_catch_clause_token1, 356), (aux_sym_finally_clause_token1, 356), (sym_ld_rung, 358),
     (sym_fbd_network, 360), (sym_c_style_comment, 3), (sym_pascal_style_comment, 3),
     (sym_pragma, 3)]"

lemma ts_parse_row_877_scan: "row_scan tokens_63_2 0 ts_parse_row_877 = Some (Suc (Suc (Suc (Suc 0))))"
  unfolding ts_parse_row_877_def by simp

text \<open>Lines 154423 to 154535.\<close>

definition ts_parse_row_878 :: parse_row where
  "ts_parse_row_878 =
    [(sym_ERR_assign_func_call, 7530), (sym_ERR_unexpected_this_in_path, 2372),
     (sym_ERR_unexpected_super_in_path, 2372), (sym_ERR_fb_variables_after_method, 1923),
     (sym_ERR_var_access_not_allowed, 3160), (sym_ERR_var_config_not_allowed, 3160),
     (sym_ERR_var_global_not_allowed, 3160), (sym_ERR_method_decl_in_body, 3150),
     (sym_extern_pragma, 7490), (sym_wasm_pragma, 3150), (sym_warn_pragma, 7490),
     (sym_allow_pragma, 3140), (sym_test_pragma, 7490), (sym_once_pragma, 7490),
     (sym_must_call_pragma, 7490), (sym_export_pragma, 7490), (sym_pou_pragma, 7194),
     (sym_direct_variable, 7675), (sym_deref_expression, 2373), (sym_variable, 7599),
     (sym_var_access, 2373), (sym_in_out_decls, 3160), (sym_var_decls, 3160),
     (sym_retain_var_decls, 3160), (sym_temp_var_decls, 3160), (sym_external_var_decls, 3160),
     (sym_global_var_decls, 2947), (sym_loc_partly_var_decl, 3160), (sym__fb_variables, 2343),
     (sym_fb_input_decls, 3160), (sym_fb_output_decls, 3160), (sym_no_retain_var_decls, 3160),
     (sym_fb_body, 9254), (sym_method_decl, 2549), (sym_prog_access_decls, 3043), (sym_SFC, 7970),
     (sym_SFC_network, 7612), (sym_initial_step, 7439), (sym_config_init, 3047),
     (sym_variable_access, 7530), (sym_func_call, 2961), (sym_stmt_list, 7970), (sym__stmt, 2024),
     (sym_assign, 3150), (sym_if_stmt, 3150), (sym_case_stmt, 3150), (sym_for_stmt, 3150),
     (sym_while_stmt, 3150), (sym_repeat_stmt, 3150), (sym_raise_stmt, 3150), (sym_try_stmt, 3150),
     (sym_ERR_clause_outside_try, 3150), (sym_begin_path_expression, 2943), (sym_invocation, 2934),
     (sym_any_invocation, 2935), (sym_this_invocation, 2641), (sym_super_invocation, 2641),
     (sym_super_body_invocation, 2935), (sym_path_expression, 2627), (sym_field_expression, 2373),
     (sym_index_expression, 2373), (sym_ladder_diagram, 7970), (sym_fb_diagram, 7970),
     (aux_sym_ERR_fb_variables_after_method_repeat1, 2343), (aux_sym_func_decl_repeat1, 7194),
     (aux_sym_fb_decl_repeat3, 2549), (aux_sym_SFC_repeat1, 7612),
     (aux_sym_stmt_list_repeat1, 2024), (aux_sym_ladder_diagram_repeat1, 8009),
     (aux_sym_fb_diagram_repeat1, 8013), (sym_identifier, 298),
     (aux_sym_ERR_unexpected_this_in_path_token1, 304),
     (aux_sym_ERR_unexpected_super_in_path_token1, 306), (sym_line_comment, 3),
     (anon_sym_LBRACE, 308), (aux_sym_test_pragma_token1, 9), (aux_sym_once_pragma_token1, 11),
     (aux_sym_must_call_pragma_token1, 13), (aux_sym_export_pragma_token1, 15),
     (anon_sym_SEMI, 310), (anon_sym_PERCENT, 312), (aux_sym_input_decls_token1, 314),
     (aux_sym_output_decls_token1, 316), (aux_sym_in_out_decls_token1, 318),
     (aux_sym_var_decls_token1, 320), (aux_sym_temp_var_decls_token1, 322),
     (aux_sym_external_var_decls_token1, 324), (aux_sym_global_var_decls_token1, 326),
     (aux_sym_fb_decl_token4, 2086), (aux_sym_method_decl_token1, 330),
     (aux_sym_prog_access_decls_token1, 332), (aux_sym_initial_step_token1, 334),
     (aux_sym_config_init_token1, 336), (aux_sym__stmt_token1, 340), (aux_sym__stmt_token2, 340),
     (aux_sym__stmt_token3, 340), (aux_sym_if_stmt_token1, 342), (aux_sym_case_stmt_token1, 344),
     (aux_sym_for_stmt_token1, 346), (aux_sym_while_stmt_token1, 348),
     (aux_sym_repeat_stmt_token1, 350), (aux_sym_raise_stmt_token1, 352),
     (aux_sym_try_stmt_token1, 354), (aux_sym_try_stmt_token2, 356),
     (aux_sym_catch_clause_token1, 356), (aux_sym_finally_clause_token1, 356), (sym_ld_rung, 358),
     (sym_fbd_network, 360), (sym_c_style_comment, 3), (sym_pascal_style_comment, 3),
     (sym_pragma, 3)]"

lemma ts_parse_row_878_scan: "row_scan tokens_63_2 0 ts_parse_row_878 = Some (Suc (Suc (Suc (Suc 0))))"
  unfolding ts_parse_row_878_def by simp

text \<open>Lines 154536 to 154648.\<close>

definition ts_parse_row_879 :: parse_row where
  "ts_parse_row_879 =
    [(sym_ERR_assign_func_call, 7530), (sym_ERR_unexpected_this_in_path, 2372),
     (sym_ERR_unexpected_super_in_path, 2372), (sym_ERR_fb_variables_after_method, 1925),
     (sym_ERR_var_access_not_allowed, 3160), (sym_ERR_var_config_not_allowed, 3160),
     (sym_ERR_var_global_not_allowed, 3160), (sym_ERR_method_decl_in_body, 3150),
     (sym_extern_pragma, 7490), (sym_wasm_pragma, 3150), (sym_warn_pragma, 7490),
     (sym_allow_pragma, 3140), (sym_test_pragma, 7490), (sym_once_pragma, 7490),
     (sym_must_call_pragma, 7490), (sym_export_pragma, 7490), (sym_pou_pragma, 7194),
     (sym_direct_variable, 7675), (sym_deref_expression, 2373), (sym_variable, 7599),
     (sym_var_access, 2373), (sym_in_out_decls, 3160), (sym_var_decls, 3160),
     (sym_retain_var_decls, 3160), (sym_temp_var_decls, 3160), (sym_external_var_decls, 3160),
     (sym_global_var_decls, 2947), (sym_loc_partly_var_decl, 3160), (sym__fb_variables, 2347),
     (sym_fb_input_decls, 3160), (sym_fb_output_decls, 3160), (sym_no_retain_var_decls, 3160),
     (sym_fb_body, 9287), (sym_method_decl, 447), (sym_prog_access_decls, 3043), (sym_SFC, 7970),
     (sym_SFC_network, 7612), (sym_initial_step, 7439), (sym_config_init, 3047),
     (sym_variable_access, 7530), (sym_func_call, 2961), (sym_stmt_list, 7970), (sym__stmt, 2024),
     (sym_assign, 3150), (sym_if_stmt, 3150), (sym_case_stmt, 3150), (sym_for_stmt, 3150),
     (sym_while_stmt, 3150), (sym_repeat_stmt, 3150), (sym_raise_stmt, 3150), (sym_try_stmt, 3150),
     (sym_ERR_clause_outside_try, 3150), (sym_begin_path_expression, 2943), (sym_invocation, 2934),
     (sym_any_invocation, 2935), (sym_this_invocation, 2641), (sym_super_invocation, 2641),
     (sym_super_body_invocation, 2935), (sym_path_expression, 2627), (sym_field_expression, 2373),
     (sym_index_expression, 2373), (sym_ladder_diagram, 7970), (sym_fb_diagram, 7970),
     (aux_sym_ERR_fb_variables_after_method_repeat1, 2347), (aux_sym_func_decl_repeat1, 7194),
     (aux_sym_fb_decl_repeat3, 447), (aux_sym_SFC_repeat1, 7612), (aux_sym_stmt_list_repeat1, 2024),
     (aux_sym_ladder_diagram_repeat1, 8009), (aux_sym_fb_diagram_repeat1, 8013),
     (sym_identifier, 298), (aux_sym_ERR_unexpected_this_in_path_token1, 304),
     (aux_sym_ERR_unexpected_super_in_path_token1, 306), (sym_line_comment, 3),
     (anon_sym_LBRACE, 308), (aux_sym_test_pragma_token1, 9), (aux_sym_once_pragma_token1, 11),
     (aux_sym_must_call_pragma_token1, 13), (aux_sym_export_pragma_token1, 15),
     (anon_sym_SEMI, 310), (anon_sym_PERCENT, 312), (aux_sym_input_decls_token1, 314),
     (aux_sym_output_decls_token1, 316), (aux_sym_in_out_decls_token1, 318),
     (aux_sym_var_decls_token1, 320), (aux_sym_temp_var_decls_token1, 322),
     (aux_sym_external_var_decls_token1, 324), (aux_sym_global_var_decls_token1, 326),
     (aux_sym_fb_decl_token4, 2088), (aux_sym_method_decl_token1, 330),
     (aux_sym_prog_access_decls_token1, 332), (aux_sym_initial_step_token1, 334),
     (aux_sym_config_init_token1, 336), (aux_sym__stmt_token1, 340), (aux_sym__stmt_token2, 340),
     (aux_sym__stmt_token3, 340), (aux_sym_if_stmt_token1, 342), (aux_sym_case_stmt_token1, 344),
     (aux_sym_for_stmt_token1, 346), (aux_sym_while_stmt_token1, 348),
     (aux_sym_repeat_stmt_token1, 350), (aux_sym_raise_stmt_token1, 352),
     (aux_sym_try_stmt_token1, 354), (aux_sym_try_stmt_token2, 356),
     (aux_sym_catch_clause_token1, 356), (aux_sym_finally_clause_token1, 356), (sym_ld_rung, 358),
     (sym_fbd_network, 360), (sym_c_style_comment, 3), (sym_pascal_style_comment, 3),
     (sym_pragma, 3)]"

lemma ts_parse_row_879_scan: "row_scan tokens_63_2 0 ts_parse_row_879 = Some (Suc (Suc (Suc (Suc 0))))"
  unfolding ts_parse_row_879_def by simp

text \<open>Lines 154649 to 154761.\<close>

definition ts_parse_row_880 :: parse_row where
  "ts_parse_row_880 =
    [(sym_ERR_assign_func_call, 7530), (sym_ERR_unexpected_this_in_path, 2372),
     (sym_ERR_unexpected_super_in_path, 2372), (sym_ERR_fb_variables_after_method, 1566),
     (sym_ERR_var_access_not_allowed, 3160), (sym_ERR_var_config_not_allowed, 3160),
     (sym_ERR_var_global_not_allowed, 3160), (sym_ERR_method_decl_in_body, 3150),
     (sym_extern_pragma, 7490), (sym_wasm_pragma, 3150), (sym_warn_pragma, 7490),
     (sym_allow_pragma, 3140), (sym_test_pragma, 7490), (sym_once_pragma, 7490),
     (sym_must_call_pragma, 7490), (sym_export_pragma, 7490), (sym_pou_pragma, 7194),
     (sym_direct_variable, 7675), (sym_deref_expression, 2373), (sym_variable, 7599),
     (sym_var_access, 2373), (sym_in_out_decls, 3160), (sym_var_decls, 3160),
     (sym_retain_var_decls, 3160), (sym_temp_var_decls, 3160), (sym_external_var_decls, 3160),
     (sym_global_var_decls, 2947), (sym_loc_partly_var_decl, 3160), (sym__fb_variables, 2347),
     (sym_fb_input_decls, 3160), (sym_fb_output_decls, 3160), (sym_no_retain_var_decls, 3160),
     (sym_fb_body, 9391), (sym_method_decl, 739), (sym_prog_access_decls, 3043), (sym_SFC, 7970),
     (sym_SFC_network, 7612), (sym_initial_step, 7439), (sym_config_init, 3047),
     (sym_variable_access, 7530), (sym_func_call, 2961), (sym_stmt_list, 7970), (sym__stmt, 2024),
     (sym_assign, 3150), (sym_if_stmt, 3150), (sym_case_stmt, 3150), (sym_for_stmt, 3150),
     (sym_while_stmt, 3150), (sym_repeat_stmt, 3150), (sym_raise_stmt, 3150), (sym_try_stmt, 3150),
     (sym_ERR_clause_outside_try, 3150), (sym_begin_path_expression, 2943), (sym_invocation, 2934),
     (sym_any_invocation, 2935), (sym_this_invocation, 2641), (sym_super_invocation, 2641),
     (sym_super_body_invocation, 2935), (sym_path_expression, 2627), (sym_field_expression, 2373),
     (sym_index_expression, 2373), (sym_ladder_diagram, 7970), (sym_fb_diagram, 7970),
     (aux_sym_ERR_fb_variables_after_method_repeat1, 2347), (aux_sym_func_decl_repeat1, 7194),
     (aux_sym_fb_decl_repeat3, 739), (aux_sym_SFC_repeat1, 7612), (aux_sym_stmt_list_repeat1, 2024),
     (aux_sym_ladder_diagram_repeat1, 8009), (aux_sym_fb_diagram_repeat1, 8013),
     (sym_identifier, 298), (aux_sym_ERR_unexpected_this_in_path_token1, 304),
     (aux_sym_ERR_unexpected_super_in_path_token1, 306), (sym_line_comment, 3),
     (anon_sym_LBRACE, 308), (aux_sym_test_pragma_token1, 9), (aux_sym_once_pragma_token1, 11),
     (aux_sym_must_call_pragma_token1, 13), (aux_sym_export_pragma_token1, 15),
     (anon_sym_SEMI, 310), (anon_sym_PERCENT, 312), (aux_sym_input_decls_token1, 314),
     (aux_sym_output_decls_token1, 316), (aux_sym_in_out_decls_token1, 318),
     (aux_sym_var_decls_token1, 320), (aux_sym_temp_var_decls_token1, 322),
     (aux_sym_external_var_decls_token1, 324), (aux_sym_global_var_decls_token1, 326),
     (aux_sym_fb_decl_token4, 2090), (aux_sym_method_decl_token1, 330),
     (aux_sym_prog_access_decls_token1, 332), (aux_sym_initial_step_token1, 334),
     (aux_sym_config_init_token1, 336), (aux_sym__stmt_token1, 340), (aux_sym__stmt_token2, 340),
     (aux_sym__stmt_token3, 340), (aux_sym_if_stmt_token1, 342), (aux_sym_case_stmt_token1, 344),
     (aux_sym_for_stmt_token1, 346), (aux_sym_while_stmt_token1, 348),
     (aux_sym_repeat_stmt_token1, 350), (aux_sym_raise_stmt_token1, 352),
     (aux_sym_try_stmt_token1, 354), (aux_sym_try_stmt_token2, 356),
     (aux_sym_catch_clause_token1, 356), (aux_sym_finally_clause_token1, 356), (sym_ld_rung, 358),
     (sym_fbd_network, 360), (sym_c_style_comment, 3), (sym_pascal_style_comment, 3),
     (sym_pragma, 3)]"

lemma ts_parse_row_880_scan: "row_scan tokens_63_2 0 ts_parse_row_880 = Some (Suc (Suc (Suc (Suc 0))))"
  unfolding ts_parse_row_880_def by simp

text \<open>Lines 154762 to 154869.\<close>

definition ts_parse_row_881 :: parse_row where
  "ts_parse_row_881 =
    [(sym_ERR_assign_func_call, 7530), (sym_ERR_unexpected_this_in_path, 2372),
     (sym_ERR_unexpected_super_in_path, 2372), (sym_ERR_var_access_not_allowed, 3266),
     (sym_ERR_var_config_not_allowed, 3266), (sym_ERR_var_external_not_allowed, 3266),
     (sym_ERR_var_global_not_allowed, 3266), (sym_ERR_method_decl_in_body, 3150),
     (sym_extern_pragma, 7490), (sym_wasm_pragma, 3150), (sym_warn_pragma, 7490),
     (sym_allow_pragma, 3140), (sym_test_pragma, 7490), (sym_once_pragma, 7490),
     (sym_must_call_pragma, 7490), (sym_export_pragma, 7490), (sym_pou_pragma, 7194),
     (sym_direct_variable, 7675), (sym_deref_expression, 2373), (sym_variable, 7599),
     (sym_var_access, 2373), (sym_input_decls, 3266), (sym_output_decls, 3266),
     (sym_in_out_decls, 3266), (sym_var_decls, 3266), (sym_temp_var_decls, 3266),
     (sym_external_var_decls, 3248), (sym_global_var_decls, 2947), (sym__func_variables, 981),
     (sym_func_body, 9974), (sym_method_decl, 3159), (sym_prog_access_decls, 3043),
     (sym_config_init, 3047), (sym_using_directive, 892), (sym_variable_access, 7530),
     (sym_func_call, 2961), (sym_stmt_list, 8165), (sym__stmt, 2024), (sym_assign, 3150),
     (sym_if_stmt, 3150), (sym_case_stmt, 3150), (sym_for_stmt, 3150), (sym_while_stmt, 3150),
     (sym_repeat_stmt, 3150), (sym_raise_stmt, 3150), (sym_try_stmt, 3150),
     (sym_ERR_clause_outside_try, 3150), (sym_begin_path_expression, 2943), (sym_invocation, 2934),
     (sym_any_invocation, 2935), (sym_this_invocation, 2641), (sym_super_invocation, 2641),
     (sym_super_body_invocation, 2935), (sym_path_expression, 2627), (sym_field_expression, 2373),
     (sym_index_expression, 2373), (sym_ladder_diagram, 8165), (sym_fb_diagram, 8165),
     (aux_sym_func_decl_repeat1, 7194), (aux_sym_func_decl_repeat2, 892),
     (aux_sym_func_decl_repeat3, 981), (aux_sym_stmt_list_repeat1, 2024),
     (aux_sym_ladder_diagram_repeat1, 7628), (aux_sym_fb_diagram_repeat1, 7633),
     (sym_identifier, 298), (anon_sym_COLON, 2092),
     (aux_sym_ERR_unexpected_this_in_path_token1, 304),
     (aux_sym_ERR_unexpected_super_in_path_token1, 306), (sym_line_comment, 3),
     (anon_sym_LBRACE, 308), (aux_sym_test_pragma_token1, 9), (aux_sym_once_pragma_token1, 11),
     (aux_sym_must_call_pragma_token1, 13), (aux_sym_export_pragma_token1, 15),
     (anon_sym_SEMI, 310), (anon_sym_PERCENT, 312), (aux_sym_input_decls_token1, 2094),
     (aux_sym_output_decls_token1, 2096), (aux_sym_in_out_decls_token1, 318),
     (aux_sym_var_decls_token1, 2098), (aux_sym_temp_var_decls_token1, 322),
     (aux_sym_external_var_decls_token1, 324), (aux_sym_global_var_decls_token1, 326),
     (aux_sym_func_decl_token2, 2100), (aux_sym_method_decl_token1, 330),
     (aux_sym_prog_access_decls_token1, 332), (aux_sym_config_init_token1, 336),
     (aux_sym_using_directive_token1, 338), (aux_sym__stmt_token1, 340),
     (aux_sym__stmt_token2, 340), (aux_sym__stmt_token3, 340), (aux_sym_if_stmt_token1, 342),
     (aux_sym_case_stmt_token1, 344), (aux_sym_for_stmt_token1, 346),
     (aux_sym_while_stmt_token1, 348), (aux_sym_repeat_stmt_token1, 350),
     (aux_sym_raise_stmt_token1, 352), (aux_sym_try_stmt_token1, 354),
     (aux_sym_try_stmt_token2, 356), (aux_sym_catch_clause_token1, 356),
     (aux_sym_finally_clause_token1, 356), (sym_ld_rung, 2102), (sym_fbd_network, 2104),
     (sym_c_style_comment, 3), (sym_pascal_style_comment, 3), (sym_pragma, 3)]"

lemma ts_parse_row_881_scan: "row_scan tokens_63_2 0 ts_parse_row_881 = Some (Suc (Suc (Suc (Suc 0))))"
  unfolding ts_parse_row_881_def by simp

text \<open>Lines 154870 to 154977.\<close>

definition ts_parse_row_882 :: parse_row where
  "ts_parse_row_882 =
    [(sym_ERR_assign_func_call, 7530), (sym_ERR_unexpected_this_in_path, 2372),
     (sym_ERR_unexpected_super_in_path, 2372), (sym_ERR_var_access_not_allowed, 3266),
     (sym_ERR_var_config_not_allowed, 3266), (sym_ERR_var_external_not_allowed, 3266),
     (sym_ERR_var_global_not_allowed, 3266), (sym_ERR_method_decl_in_body, 3150),
     (sym_extern_pragma, 7490), (sym_wasm_pragma, 3150), (sym_warn_pragma, 7490),
     (sym_allow_pragma, 3140), (sym_test_pragma, 7490), (sym_once_pragma, 7490),
     (sym_must_call_pragma, 7490), (sym_export_pragma, 7490), (sym_pou_pragma, 7194),
     (sym_direct_variable, 7675), (sym_deref_expression, 2373), (sym_variable, 7599),
     (sym_var_access, 2373), (sym_input_decls, 3266), (sym_output_decls, 3266),
     (sym_in_out_decls, 3266), (sym_var_decls, 3266), (sym_temp_var_decls, 3266),
     (sym_external_var_decls, 3248), (sym_global_var_decls, 2947), (sym__func_variables, 961),
     (sym_func_body, 8369), (sym_method_decl, 3159), (sym_prog_access_decls, 3043),
     (sym_config_init, 3047), (sym_using_directive, 888), (sym_variable_access, 7530),
     (sym_func_call, 2961), (sym_stmt_list, 8165), (sym__stmt, 2024), (sym_assign, 3150),
     (sym_if_stmt, 3150), (sym_case_stmt, 3150), (sym_for_stmt, 3150), (sym_while_stmt, 3150),
     (sym_repeat_stmt, 3150), (sym_raise_stmt, 3150), (sym_try_stmt, 3150),
     (sym_ERR_clause_outside_try, 3150), (sym_begin_path_expression, 2943), (sym_invocation, 2934),
     (sym_any_invocation, 2935), (sym_this_invocation, 2641), (sym_super_invocation, 2641),
     (sym_super_body_invocation, 2935), (sym_path_expression, 2627), (sym_field_expression, 2373),
     (sym_index_expression, 2373), (sym_ladder_diagram, 8165), (sym_fb_diagram, 8165),
     (aux_sym_func_decl_repeat1, 7194), (aux_sym_func_decl_repeat2, 888),
     (aux_sym_func_decl_repeat3, 961), (aux_sym_stmt_list_repeat1, 2024),
     (aux_sym_ladder_diagram_repeat1, 7628), (aux_sym_fb_diagram_repeat1, 7633),
     (sym_identifier, 298), (anon_sym_COLON, 2106),
     (aux_sym_ERR_unexpected_this_in_path_token1, 304),
     (aux_sym_ERR_unexpected_super_in_path_token1, 306), (sym_line_comment, 3),
     (anon_sym_LBRACE, 308), (aux_sym_test_pragma_token1, 9), (aux_sym_once_pragma_token1, 11),
     (aux_sym_must_call_pragma_token1, 13), (aux_sym_export_pragma_token1, 15),
     (anon_sym_SEMI, 310), (anon_sym_PERCENT, 312), (aux_sym_input_decls_token1, 2094),
     (aux_sym_output_decls_token1, 2096), (aux_sym_in_out_decls_token1, 318),
     (aux_sym_var_decls_token1, 2098), (aux_sym_temp_var_decls_token1, 322),
     (aux_sym_external_var_decls_token1, 324), (aux_sym_global_var_decls_token1, 326),
     (aux_sym_func_decl_token2, 2108), (aux_sym_method_decl_token1, 330),
     (aux_sym_prog_access_decls_token1, 332), (aux_sym_config_init_token1, 336),
     (aux_sym_using_directive_token1, 338), (aux_sym__stmt_token1, 340),
     (aux_sym__stmt_token2, 340), (aux_sym__stmt_token3, 340), (aux_sym_if_stmt_token1, 342),
     (aux_sym_case_stmt_token1, 344), (aux_sym_for_stmt_token1, 346),
     (aux_sym_while_stmt_token1, 348), (aux_sym_repeat_stmt_token1, 350),
     (aux_sym_raise_stmt_token1, 352), (aux_sym_try_stmt_token1, 354),
     (aux_sym_try_stmt_token2, 356), (aux_sym_catch_clause_token1, 356),
     (aux_sym_finally_clause_token1, 356), (sym_ld_rung, 2102), (sym_fbd_network, 2104),
     (sym_c_style_comment, 3), (sym_pascal_style_comment, 3), (sym_pragma, 3)]"

lemma ts_parse_row_882_scan: "row_scan tokens_63_2 0 ts_parse_row_882 = Some (Suc (Suc (Suc (Suc 0))))"
  unfolding ts_parse_row_882_def by simp

text \<open>Lines 154978 to 155085.\<close>

definition ts_parse_row_883 :: parse_row where
  "ts_parse_row_883 =
    [(sym_ERR_assign_func_call, 7530), (sym_ERR_unexpected_this_in_path, 2372),
     (sym_ERR_unexpected_super_in_path, 2372), (sym_ERR_var_access_not_allowed, 3266),
     (sym_ERR_var_config_not_allowed, 3266), (sym_ERR_var_external_not_allowed, 3266),
     (sym_ERR_var_global_not_allowed, 3266), (sym_ERR_method_decl_in_body, 3150),
     (sym_extern_pragma, 7490), (sym_wasm_pragma, 3150), (sym_warn_pragma, 7490),
     (sym_allow_pragma, 3140), (sym_test_pragma, 7490), (sym_once_pragma, 7490),
     (sym_must_call_pragma, 7490), (sym_export_pragma, 7490), (sym_pou_pragma, 7194),
     (sym_direct_variable, 7675), (sym_deref_expression, 2373), (sym_variable, 7599),
     (sym_var_access, 2373), (sym_input_decls, 3266), (sym_output_decls, 3266),
     (sym_in_out_decls, 3266), (sym_var_decls, 3266), (sym_temp_var_decls, 3266),
     (sym_external_var_decls, 3248), (sym_global_var_decls, 2947), (sym__func_variables, 1048),
     (sym_func_body, 9173), (sym_method_decl, 3159), (sym_prog_access_decls, 3043),
     (sym_config_init, 3047), (sym_using_directive, 895), (sym_variable_access, 7530),
     (sym_func_call, 2961), (sym_stmt_list, 8165), (sym__stmt, 2024), (sym_assign, 3150),
     (sym_if_stmt, 3150), (sym_case_stmt, 3150), (sym_for_stmt, 3150), (sym_while_stmt, 3150),
     (sym_repeat_stmt, 3150), (sym_raise_stmt, 3150), (sym_try_stmt, 3150),
     (sym_ERR_clause_outside_try, 3150), (sym_begin_path_expression, 2943), (sym_invocation, 2934),
     (sym_any_invocation, 2935), (sym_this_invocation, 2641), (sym_super_invocation, 2641),
     (sym_super_body_invocation, 2935), (sym_path_expression, 2627), (sym_field_expression, 2373),
     (sym_index_expression, 2373), (sym_ladder_diagram, 8165), (sym_fb_diagram, 8165),
     (aux_sym_func_decl_repeat1, 7194), (aux_sym_func_decl_repeat2, 895),
     (aux_sym_func_decl_repeat3, 1048), (aux_sym_stmt_list_repeat1, 2024),
     (aux_sym_ladder_diagram_repeat1, 7628), (aux_sym_fb_diagram_repeat1, 7633),
     (sym_identifier, 298), (anon_sym_COLON, 2110),
     (aux_sym_ERR_unexpected_this_in_path_token1, 304),
     (aux_sym_ERR_unexpected_super_in_path_token1, 306), (sym_line_comment, 3),
     (anon_sym_LBRACE, 308), (aux_sym_test_pragma_token1, 9), (aux_sym_once_pragma_token1, 11),
     (aux_sym_must_call_pragma_token1, 13), (aux_sym_export_pragma_token1, 15),
     (anon_sym_SEMI, 310), (anon_sym_PERCENT, 312), (aux_sym_input_decls_token1, 2094),
     (aux_sym_output_decls_token1, 2096), (aux_sym_in_out_decls_token1, 318),
     (aux_sym_var_decls_token1, 2098), (aux_sym_temp_var_decls_token1, 322),
     (aux_sym_external_var_decls_token1, 324), (aux_sym_global_var_decls_token1, 326),
     (aux_sym_func_decl_token2, 2112), (aux_sym_method_decl_token1, 330),
     (aux_sym_prog_access_decls_token1, 332), (aux_sym_config_init_token1, 336),
     (aux_sym_using_directive_token1, 338), (aux_sym__stmt_token1, 340),
     (aux_sym__stmt_token2, 340), (aux_sym__stmt_token3, 340), (aux_sym_if_stmt_token1, 342),
     (aux_sym_case_stmt_token1, 344), (aux_sym_for_stmt_token1, 346),
     (aux_sym_while_stmt_token1, 348), (aux_sym_repeat_stmt_token1, 350),
     (aux_sym_raise_stmt_token1, 352), (aux_sym_try_stmt_token1, 354),
     (aux_sym_try_stmt_token2, 356), (aux_sym_catch_clause_token1, 356),
     (aux_sym_finally_clause_token1, 356), (sym_ld_rung, 2102), (sym_fbd_network, 2104),
     (sym_c_style_comment, 3), (sym_pascal_style_comment, 3), (sym_pragma, 3)]"

lemma ts_parse_row_883_scan: "row_scan tokens_63_2 0 ts_parse_row_883 = Some (Suc (Suc (Suc (Suc 0))))"
  unfolding ts_parse_row_883_def by simp

text \<open>Lines 155086 to 155193.\<close>

definition ts_parse_row_884 :: parse_row where
  "ts_parse_row_884 =
    [(sym_ERR_assign_func_call, 7530), (sym_ERR_unexpected_this_in_path, 2372),
     (sym_ERR_unexpected_super_in_path, 2372), (sym_ERR_var_access_not_allowed, 3266),
     (sym_ERR_var_config_not_allowed, 3266), (sym_ERR_var_external_not_allowed, 3266),
     (sym_ERR_var_global_not_allowed, 3266), (sym_ERR_method_decl_in_body, 3150),
     (sym_extern_pragma, 7490), (sym_wasm_pragma, 3150), (sym_warn_pragma, 7490),
     (sym_allow_pragma, 3140), (sym_test_pragma, 7490), (sym_once_pragma, 7490),
     (sym_must_call_pragma, 7490), (sym_export_pragma, 7490), (sym_pou_pragma, 7194),
     (sym_direct_variable, 7675), (sym_deref_expression, 2373), (sym_variable, 7599),
     (sym_var_access, 2373), (sym_input_decls, 3266), (sym_output_decls, 3266),
     (sym_in_out_decls, 3266), (sym_var_decls, 3266), (sym_temp_var_decls, 3266),
     (sym_external_var_decls, 3248), (sym_global_var_decls, 2947), (sym__func_variables, 962),
     (sym_func_body, 8510), (sym_method_decl, 3159), (sym_prog_access_decls, 3043),
     (sym_config_init, 3047), (sym_using_directive, 886), (sym_variable_access, 7530),
     (sym_func_call, 2961), (sym_stmt_list, 8165), (sym__stmt, 2024), (sym_assign, 3150),
     (sym_if_stmt, 3150), (sym_case_stmt, 3150), (sym_for_stmt, 3150), (sym_while_stmt, 3150),
     (sym_repeat_stmt, 3150), (sym_raise_stmt, 3150), (sym_try_stmt, 3150),
     (sym_ERR_clause_outside_try, 3150), (sym_begin_path_expression, 2943), (sym_invocation, 2934),
     (sym_any_invocation, 2935), (sym_this_invocation, 2641), (sym_super_invocation, 2641),
     (sym_super_body_invocation, 2935), (sym_path_expression, 2627), (sym_field_expression, 2373),
     (sym_index_expression, 2373), (sym_ladder_diagram, 8165), (sym_fb_diagram, 8165),
     (aux_sym_func_decl_repeat1, 7194), (aux_sym_func_decl_repeat2, 886),
     (aux_sym_func_decl_repeat3, 962), (aux_sym_stmt_list_repeat1, 2024),
     (aux_sym_ladder_diagram_repeat1, 7628), (aux_sym_fb_diagram_repeat1, 7633),
     (sym_identifier, 298), (anon_sym_COLON, 2114),
     (aux_sym_ERR_unexpected_this_in_path_token1, 304),
     (aux_sym_ERR_unexpected_super_in_path_token1, 306), (sym_line_comment, 3),
     (anon_sym_LBRACE, 308), (aux_sym_test_pragma_token1, 9), (aux_sym_once_pragma_token1, 11),
     (aux_sym_must_call_pragma_token1, 13), (aux_sym_export_pragma_token1, 15),
     (anon_sym_SEMI, 310), (anon_sym_PERCENT, 312), (aux_sym_input_decls_token1, 2094),
     (aux_sym_output_decls_token1, 2096), (aux_sym_in_out_decls_token1, 318),
     (aux_sym_var_decls_token1, 2098), (aux_sym_temp_var_decls_token1, 322),
     (aux_sym_external_var_decls_token1, 324), (aux_sym_global_var_decls_token1, 326),
     (aux_sym_func_decl_token2, 2116), (aux_sym_method_decl_token1, 330),
     (aux_sym_prog_access_decls_token1, 332), (aux_sym_config_init_token1, 336),
     (aux_sym_using_directive_token1, 338), (aux_sym__stmt_token1, 340),
     (aux_sym__stmt_token2, 340), (aux_sym__stmt_token3, 340), (aux_sym_if_stmt_token1, 342),
     (aux_sym_case_stmt_token1, 344), (aux_sym_for_stmt_token1, 346),
     (aux_sym_while_stmt_token1, 348), (aux_sym_repeat_stmt_token1, 350),
     (aux_sym_raise_stmt_token1, 352), (aux_sym_try_stmt_token1, 354),
     (aux_sym_try_stmt_token2, 356), (aux_sym_catch_clause_token1, 356),
     (aux_sym_finally_clause_token1, 356), (sym_ld_rung, 2102), (sym_fbd_network, 2104),
     (sym_c_style_comment, 3), (sym_pascal_style_comment, 3), (sym_pragma, 3)]"

lemma ts_parse_row_884_scan: "row_scan tokens_63_2 0 ts_parse_row_884 = Some (Suc (Suc (Suc (Suc 0))))"
  unfolding ts_parse_row_884_def by simp

text \<open>Lines 155194 to 155300.\<close>

definition ts_parse_row_885 :: parse_row where
  "ts_parse_row_885 =
    [(sym_ERR_assign_func_call, 7530), (sym_ERR_unexpected_this_in_path, 2372),
     (sym_ERR_unexpected_super_in_path, 2372), (sym_ERR_var_access_not_allowed, 3266),
     (sym_ERR_var_config_not_allowed, 3266), (sym_ERR_var_external_not_allowed, 3266),
     (sym_ERR_var_global_not_allowed, 3266), (sym_ERR_method_decl_in_body, 3150),
     (sym_extern_pragma, 7490), (sym_wasm_pragma, 3150), (sym_warn_pragma, 7490),
     (sym_allow_pragma, 3140), (sym_test_pragma, 7490), (sym_once_pragma, 7490),
     (sym_must_call_pragma, 7490), (sym_export_pragma, 7490), (sym_pou_pragma, 7194),
     (sym_direct_variable, 7675), (sym_deref_expression, 2373), (sym_variable, 7599),
     (sym_var_access, 2373), (sym_input_decls, 3266), (sym_output_decls, 3266),
     (sym_in_out_decls, 3266), (sym_var_decls, 3266), (sym_temp_var_decls, 3266),
     (sym_external_var_decls, 3248), (sym_global_var_decls, 2947), (sym__func_variables, 957),
     (sym_func_body, 9936), (sym_method_decl, 3159), (sym_prog_access_decls, 3043),
     (sym_config_init, 3047), (sym_using_directive, 2991), (sym_variable_access, 7530),
     (sym_func_call, 2961), (sym_stmt_list, 8165), (sym__stmt, 2024), (sym_assign, 3150),
     (sym_if_stmt, 3150), (sym_case_stmt, 3150), (sym_for_stmt, 3150), (sym_while_stmt, 3150),
     (sym_repeat_stmt, 3150), (sym_raise_stmt, 3150), (sym_try_stmt, 3150),
     (sym_ERR_clause_outside_try, 3150), (sym_begin_path_expression, 2943), (sym_invocation, 2934),
     (sym_any_invocation, 2935), (sym_this_invocation, 2641), (sym_super_invocation, 2641),
     (sym_super_body_invocation, 2935), (sym_path_expression, 2627), (sym_field_expression, 2373),
     (sym_index_expression, 2373), (sym_ladder_diagram, 8165), (sym_fb_diagram, 8165),
     (aux_sym_func_decl_repeat1, 7194), (aux_sym_func_decl_repeat2, 2991),
     (aux_sym_func_decl_repeat3, 957), (aux_sym_stmt_list_repeat1, 2024),
     (aux_sym_ladder_diagram_repeat1, 7628), (aux_sym_fb_diagram_repeat1, 7633),
     (sym_identifier, 298), (aux_sym_ERR_unexpected_this_in_path_token1, 304),
     (aux_sym_ERR_unexpected_super_in_path_token1, 306), (sym_line_comment, 3),
     (anon_sym_LBRACE, 308), (aux_sym_test_pragma_token1, 9), (aux_sym_once_pragma_token1, 11),
     (aux_sym_must_call_pragma_token1, 13), (aux_sym_export_pragma_token1, 15),
     (anon_sym_SEMI, 310), (anon_sym_PERCENT, 312), (aux_sym_input_decls_token1, 2094),
     (aux_sym_output_decls_token1, 2096), (aux_sym_in_out_decls_token1, 318),
     (aux_sym_var_decls_token1, 2098), (aux_sym_temp_var_decls_token1, 322),
     (aux_sym_external_var_decls_token1, 324), (aux_sym_global_var_decls_token1, 326),
     (aux_sym_func_decl_token2, 2118), (aux_sym_method_decl_token1, 330),
     (aux_sym_prog_access_decls_token1, 332), (aux_sym_config_init_token1, 336),
     (aux_sym_using_directive_token1, 338), (aux_sym__stmt_token1, 340),
     (aux_sym__stmt_token2, 340), (aux_sym__stmt_token3, 340), (aux_sym_if_stmt_token1, 342),
     (aux_sym_case_stmt_token1, 344), (aux_sym_for_stmt_token1, 346),
     (aux_sym_while_stmt_token1, 348), (aux_sym_repeat_stmt_token1, 350),
     (aux_sym_raise_stmt_token1, 352), (aux_sym_try_stmt_token1, 354),
     (aux_sym_try_stmt_token2, 356), (aux_sym_catch_clause_token1, 356),
     (aux_sym_finally_clause_token1, 356), (sym_ld_rung, 2102), (sym_fbd_network, 2104),
     (sym_c_style_comment, 3), (sym_pascal_style_comment, 3), (sym_pragma, 3)]"

lemma ts_parse_row_885_scan: "row_scan tokens_63_2 0 ts_parse_row_885 = Some (Suc (Suc (Suc (Suc 0))))"
  unfolding ts_parse_row_885_def by simp

text \<open>Lines 155301 to 155407.\<close>

definition ts_parse_row_886 :: parse_row where
  "ts_parse_row_886 =
    [(sym_ERR_assign_func_call, 7530), (sym_ERR_unexpected_this_in_path, 2372),
     (sym_ERR_unexpected_super_in_path, 2372), (sym_ERR_var_access_not_allowed, 3266),
     (sym_ERR_var_config_not_allowed, 3266), (sym_ERR_var_external_not_allowed, 3266),
     (sym_ERR_var_global_not_allowed, 3266), (sym_ERR_method_decl_in_body, 3150),
     (sym_extern_pragma, 7490), (sym_wasm_pragma, 3150), (sym_warn_pragma, 7490),
     (sym_allow_pragma, 3140), (sym_test_pragma, 7490), (sym_once_pragma, 7490),
     (sym_must_call_pragma, 7490), (sym_export_pragma, 7490), (sym_pou_pragma, 7194),
     (sym_direct_variable, 7675), (sym_deref_expression, 2373), (sym_variable, 7599),
     (sym_var_access, 2373), (sym_input_decls, 3266), (sym_output_decls, 3266),
     (sym_in_out_decls, 3266), (sym_var_decls, 3266), (sym_temp_var_decls, 3266),
     (sym_external_var_decls, 3248), (sym_global_var_decls, 2947), (sym__func_variables, 1050),
     (sym_func_body, 10524), (sym_method_decl, 3159), (sym_prog_access_decls, 3043),
     (sym_config_init, 3047), (sym_using_directive, 2991), (sym_variable_access, 7530),
     (sym_func_call, 2961), (sym_stmt_list, 8165), (sym__stmt, 2024), (sym_assign, 3150),
     (sym_if_stmt, 3150), (sym_case_stmt, 3150), (sym_for_stmt, 3150), (sym_while_stmt, 3150),
     (sym_repeat_stmt, 3150), (sym_raise_stmt, 3150), (sym_try_stmt, 3150),
     (sym_ERR_clause_outside_try, 3150), (sym_begin_path_expression, 2943), (sym_invocation, 2934),
     (sym_any_invocation, 2935), (sym_this_invocation, 2641), (sym_super_invocation, 2641),
     (sym_super_body_invocation, 2935), (sym_path_expression, 2627), (sym_field_expression, 2373),
     (sym_index_expression, 2373), (sym_ladder_diagram, 8165), (sym_fb_diagram, 8165),
     (aux_sym_func_decl_repeat1, 7194), (aux_sym_func_decl_repeat2, 2991),
     (aux_sym_func_decl_repeat3, 1050), (aux_sym_stmt_list_repeat1, 2024),
     (aux_sym_ladder_diagram_repeat1, 7628), (aux_sym_fb_diagram_repeat1, 7633),
     (sym_identifier, 298), (aux_sym_ERR_unexpected_this_in_path_token1, 304),
     (aux_sym_ERR_unexpected_super_in_path_token1, 306), (sym_line_comment, 3),
     (anon_sym_LBRACE, 308), (aux_sym_test_pragma_token1, 9), (aux_sym_once_pragma_token1, 11),
     (aux_sym_must_call_pragma_token1, 13), (aux_sym_export_pragma_token1, 15),
     (anon_sym_SEMI, 310), (anon_sym_PERCENT, 312), (aux_sym_input_decls_token1, 2094),
     (aux_sym_output_decls_token1, 2096), (aux_sym_in_out_decls_token1, 318),
     (aux_sym_var_decls_token1, 2098), (aux_sym_temp_var_decls_token1, 322),
     (aux_sym_external_var_decls_token1, 324), (aux_sym_global_var_decls_token1, 326),
     (aux_sym_func_decl_token2, 2120), (aux_sym_method_decl_token1, 330),
     (aux_sym_prog_access_decls_token1, 332), (aux_sym_config_init_token1, 336),
     (aux_sym_using_directive_token1, 338), (aux_sym__stmt_token1, 340),
     (aux_sym__stmt_token2, 340), (aux_sym__stmt_token3, 340), (aux_sym_if_stmt_token1, 342),
     (aux_sym_case_stmt_token1, 344), (aux_sym_for_stmt_token1, 346),
     (aux_sym_while_stmt_token1, 348), (aux_sym_repeat_stmt_token1, 350),
     (aux_sym_raise_stmt_token1, 352), (aux_sym_try_stmt_token1, 354),
     (aux_sym_try_stmt_token2, 356), (aux_sym_catch_clause_token1, 356),
     (aux_sym_finally_clause_token1, 356), (sym_ld_rung, 2102), (sym_fbd_network, 2104),
     (sym_c_style_comment, 3), (sym_pascal_style_comment, 3), (sym_pragma, 3)]"

lemma ts_parse_row_886_scan: "row_scan tokens_63_2 0 ts_parse_row_886 = Some (Suc (Suc (Suc (Suc 0))))"
  unfolding ts_parse_row_886_def by simp

text \<open>Lines 155408 to 155514.\<close>

definition ts_parse_row_887 :: parse_row where
  "ts_parse_row_887 =
    [(sym_ERR_assign_func_call, 7530), (sym_ERR_unexpected_this_in_path, 2372),
     (sym_ERR_unexpected_super_in_path, 2372), (sym_ERR_var_access_not_allowed, 3266),
     (sym_ERR_var_config_not_allowed, 3266), (sym_ERR_var_external_not_allowed, 3266),
     (sym_ERR_var_global_not_allowed, 3266), (sym_ERR_method_decl_in_body, 3150),
     (sym_extern_pragma, 7490), (sym_wasm_pragma, 3150), (sym_warn_pragma, 7490),
     (sym_allow_pragma, 3140), (sym_test_pragma, 7490), (sym_once_pragma, 7490),
     (sym_must_call_pragma, 7490), (sym_export_pragma, 7490), (sym_pou_pragma, 7194),
     (sym_direct_variable, 7675), (sym_deref_expression, 2373), (sym_variable, 7599),
     (sym_var_access, 2373), (sym_input_decls, 3266), (sym_output_decls, 3266),
     (sym_in_out_decls, 3266), (sym_var_decls, 3266), (sym_temp_var_decls, 3266),
     (sym_external_var_decls, 3248), (sym_global_var_decls, 2947), (sym__func_variables, 1107),
     (sym_func_body, 9601), (sym_method_decl, 3159), (sym_prog_access_decls, 3043),
     (sym_config_init, 3047), (sym_using_directive, 885), (sym_variable_access, 7530),
     (sym_func_call, 2961), (sym_stmt_list, 8165), (sym__stmt, 2024), (sym_assign, 3150),
     (sym_if_stmt, 3150), (sym_case_stmt, 3150), (sym_for_stmt, 3150), (sym_while_stmt, 3150),
     (sym_repeat_stmt, 3150), (sym_raise_stmt, 3150), (sym_try_stmt, 3150),
     (sym_ERR_clause_outside_try, 3150), (sym_begin_path_expression, 2943), (sym_invocation, 2934),
     (sym_any_invocation, 2935), (sym_this_invocation, 2641), (sym_super_invocation, 2641),
     (sym_super_body_invocation, 2935), (sym_path_expression, 2627), (sym_field_expression, 2373),
     (sym_index_expression, 2373), (sym_ladder_diagram, 8165), (sym_fb_diagram, 8165),
     (aux_sym_func_decl_repeat1, 7194), (aux_sym_func_decl_repeat2, 885),
     (aux_sym_func_decl_repeat3, 1107), (aux_sym_stmt_list_repeat1, 2024),
     (aux_sym_ladder_diagram_repeat1, 7628), (aux_sym_fb_diagram_repeat1, 7633),
     (sym_identifier, 298), (aux_sym_ERR_unexpected_this_in_path_token1, 304),
     (aux_sym_ERR_unexpected_super_in_path_token1, 306), (sym_line_comment, 3),
     (anon_sym_LBRACE, 308), (aux_sym_test_pragma_token1, 9), (aux_sym_once_pragma_token1, 11),
     (aux_sym_must_call_pragma_token1, 13), (aux_sym_export_pragma_token1, 15),
     (anon_sym_SEMI, 310), (anon_sym_PERCENT, 312), (aux_sym_input_decls_token1, 2094),
     (aux_sym_output_decls_token1, 2096), (aux_sym_in_out_decls_token1, 318),
     (aux_sym_var_decls_token1, 2098), (aux_sym_temp_var_decls_token1, 322),
     (aux_sym_external_var_decls_token1, 324), (aux_sym_global_var_decls_token1, 326),
     (aux_sym_func_decl_token2, 2122), (aux_sym_method_decl_token1, 330),
     (aux_sym_prog_access_decls_token1, 332), (aux_sym_config_init_token1, 336),
     (aux_sym_using_directive_token1, 338), (aux_sym__stmt_token1, 340),
     (aux_sym__stmt_token2, 340), (aux_sym__stmt_token3, 340), (aux_sym_if_stmt_token1, 342),
     (aux_sym_case_stmt_token1, 344), (aux_sym_for_stmt_token1, 346),
     (aux_sym_while_stmt_token1, 348), (aux_sym_repeat_stmt_token1, 350),
     (aux_sym_raise_stmt_token1, 352), (aux_sym_try_stmt_token1, 354),
     (aux_sym_try_stmt_token2, 356), (aux_sym_catch_clause_token1, 356),
     (aux_sym_finally_clause_token1, 356), (sym_ld_rung, 2102), (sym_fbd_network, 2104),
     (sym_c_style_comment, 3), (sym_pascal_style_comment, 3), (sym_pragma, 3)]"

lemma ts_parse_row_887_scan: "row_scan tokens_63_2 0 ts_parse_row_887 = Some (Suc (Suc (Suc (Suc 0))))"
  unfolding ts_parse_row_887_def by simp

text \<open>Lines 155515 to 155621.\<close>

definition ts_parse_row_888 :: parse_row where
  "ts_parse_row_888 =
    [(sym_ERR_assign_func_call, 7530), (sym_ERR_unexpected_this_in_path, 2372),
     (sym_ERR_unexpected_super_in_path, 2372), (sym_ERR_var_access_not_allowed, 3266),
     (sym_ERR_var_config_not_allowed, 3266), (sym_ERR_var_external_not_allowed, 3266),
     (sym_ERR_var_global_not_allowed, 3266), (sym_ERR_method_decl_in_body, 3150),
     (sym_extern_pragma, 7490), (sym_wasm_pragma, 3150), (sym_warn_pragma, 7490),
     (sym_allow_pragma, 3140), (sym_test_pragma, 7490), (sym_once_pragma, 7490),
     (sym_must_call_pragma, 7490), (sym_export_pragma, 7490), (sym_pou_pragma, 7194),
     (sym_direct_variable, 7675), (sym_deref_expression, 2373), (sym_variable, 7599),
     (sym_var_access, 2373), (sym_input_decls, 3266), (sym_output_decls, 3266),
     (sym_in_out_decls, 3266), (sym_var_decls, 3266), (sym_temp_var_decls, 3266),
     (sym_external_var_decls, 3248), (sym_global_var_decls, 2947), (sym__func_variables, 952),
     (sym_func_body, 8483), (sym_method_decl, 3159), (sym_prog_access_decls, 3043),
     (sym_config_init, 3047), (sym_using_directive, 2991), (sym_variable_access, 7530),
     (sym_func_call, 2961), (sym_stmt_list, 8165), (sym__stmt, 2024), (sym_assign, 3150),
     (sym_if_stmt, 3150), (sym_case_stmt, 3150), (sym_for_stmt, 3150), (sym_while_stmt, 3150),
     (sym_repeat_stmt, 3150), (sym_raise_stmt, 3150), (sym_try_stmt, 3150),
     (sym_ERR_clause_outside_try, 3150), (sym_begin_path_expression, 2943), (sym_invocation, 2934),
     (sym_any_invocation, 2935), (sym_this_invocation, 2641), (sym_super_invocation, 2641),
     (sym_super_body_invocation, 2935), (sym_path_expression, 2627), (sym_field_expression, 2373),
     (sym_index_expression, 2373), (sym_ladder_diagram, 8165), (sym_fb_diagram, 8165),
     (aux_sym_func_decl_repeat1, 7194), (aux_sym_func_decl_repeat2, 2991),
     (aux_sym_func_decl_repeat3, 952), (aux_sym_stmt_list_repeat1, 2024),
     (aux_sym_ladder_diagram_repeat1, 7628), (aux_sym_fb_diagram_repeat1, 7633),
     (sym_identifier, 298), (aux_sym_ERR_unexpected_this_in_path_token1, 304),
     (aux_sym_ERR_unexpected_super_in_path_token1, 306), (sym_line_comment, 3),
     (anon_sym_LBRACE, 308), (aux_sym_test_pragma_token1, 9), (aux_sym_once_pragma_token1, 11),
     (aux_sym_must_call_pragma_token1, 13), (aux_sym_export_pragma_token1, 15),
     (anon_sym_SEMI, 310), (anon_sym_PERCENT, 312), (aux_sym_input_decls_token1, 2094),
     (aux_sym_output_decls_token1, 2096), (aux_sym_in_out_decls_token1, 318),
     (aux_sym_var_decls_token1, 2098), (aux_sym_temp_var_decls_token1, 322),
     (aux_sym_external_var_decls_token1, 324), (aux_sym_global_var_decls_token1, 326),
     (aux_sym_func_decl_token2, 2124), (aux_sym_method_decl_token1, 330),
     (aux_sym_prog_access_decls_token1, 332), (aux_sym_config_init_token1, 336),
     (aux_sym_using_directive_token1, 338), (aux_sym__stmt_token1, 340),
     (aux_sym__stmt_token2, 340), (aux_sym__stmt_token3, 340), (aux_sym_if_stmt_token1, 342),
     (aux_sym_case_stmt_token1, 344), (aux_sym_for_stmt_token1, 346),
     (aux_sym_while_stmt_token1, 348), (aux_sym_repeat_stmt_token1, 350),
     (aux_sym_raise_stmt_token1, 352), (aux_sym_try_stmt_token1, 354),
     (aux_sym_try_stmt_token2, 356), (aux_sym_catch_clause_token1, 356),
     (aux_sym_finally_clause_token1, 356), (sym_ld_rung, 2102), (sym_fbd_network, 2104),
     (sym_c_style_comment, 3), (sym_pascal_style_comment, 3), (sym_pragma, 3)]"

lemma ts_parse_row_888_scan: "row_scan tokens_63_2 0 ts_parse_row_888 = Some (Suc (Suc (Suc (Suc 0))))"
  unfolding ts_parse_row_888_def by simp

text \<open>Lines 155622 to 155728.\<close>

definition ts_parse_row_889 :: parse_row where
  "ts_parse_row_889 =
    [(sym_ERR_assign_func_call, 7530), (sym_ERR_unexpected_this_in_path, 2372),
     (sym_ERR_unexpected_super_in_path, 2372), (sym_ERR_var_access_not_allowed, 3266),
     (sym_ERR_var_config_not_allowed, 3266), (sym_ERR_var_external_not_allowed, 3266),
     (sym_ERR_var_global_not_allowed, 3266), (sym_ERR_method_decl_in_body, 3150),
     (sym_extern_pragma, 7490), (sym_wasm_pragma, 3150), (sym_warn_pragma, 7490),
     (sym_allow_pragma, 3140), (sym_test_pragma, 7490), (sym_once_pragma, 7490),
     (sym_must_call_pragma, 7490), (sym_export_pragma, 7490), (sym_pou_pragma, 7194),
     (sym_direct_variable, 7675), (sym_deref_expression, 2373), (sym_variable, 7599),
     (sym_var_access, 2373), (sym_input_decls, 3266), (sym_output_decls, 3266),
     (sym_in_out_decls, 3266), (sym_var_decls, 3266), (sym_temp_var_decls, 3266),
     (sym_external_var_decls, 3248), (sym_global_var_decls, 2947), (sym__func_variables, 1061),
     (sym_func_body, 9512), (sym_method_decl, 3159), (sym_prog_access_decls, 3043),
     (sym_config_init, 3047), (sym_using_directive, 2991), (sym_variable_access, 7530),
     (sym_func_call, 2961), (sym_stmt_list, 8165), (sym__stmt, 2024), (sym_assign, 3150),
     (sym_if_stmt, 3150), (sym_case_stmt, 3150), (sym_for_stmt, 3150), (sym_while_stmt, 3150),
     (sym_repeat_stmt, 3150), (sym_raise_stmt, 3150), (sym_try_stmt, 3150),
     (sym_ERR_clause_outside_try, 3150), (sym_begin_path_expression, 2943), (sym_invocation, 2934),
     (sym_any_invocation, 2935), (sym_this_invocation, 2641), (sym_super_invocation, 2641),
     (sym_super_body_invocation, 2935), (sym_path_expression, 2627), (sym_field_expression, 2373),
     (sym_index_expression, 2373), (sym_ladder_diagram, 8165), (sym_fb_diagram, 8165),
     (aux_sym_func_decl_repeat1, 7194), (aux_sym_func_decl_repeat2, 2991),
     (aux_sym_func_decl_repeat3, 1061), (aux_sym_stmt_list_repeat1, 2024),
     (aux_sym_ladder_diagram_repeat1, 7628), (aux_sym_fb_diagram_repeat1, 7633),
     (sym_identifier, 298), (aux_sym_ERR_unexpected_this_in_path_token1, 304),
     (aux_sym_ERR_unexpected_super_in_path_token1, 306), (sym_line_comment, 3),
     (anon_sym_LBRACE, 308), (aux_sym_test_pragma_token1, 9), (aux_sym_once_pragma_token1, 11),
     (aux_sym_must_call_pragma_token1, 13), (aux_sym_export_pragma_token1, 15),
     (anon_sym_SEMI, 310), (anon_sym_PERCENT, 312), (aux_sym_input_decls_token1, 2094),
     (aux_sym_output_decls_token1, 2096), (aux_sym_in_out_decls_token1, 318),
     (aux_sym_var_decls_token1, 2098), (aux_sym_temp_var_decls_token1, 322),
     (aux_sym_external_var_decls_token1, 324), (aux_sym_global_var_decls_token1, 326),
     (aux_sym_func_decl_token2, 2126), (aux_sym_method_decl_token1, 330),
     (aux_sym_prog_access_decls_token1, 332), (aux_sym_config_init_token1, 336),
     (aux_sym_using_directive_token1, 338), (aux_sym__stmt_token1, 340),
     (aux_sym__stmt_token2, 340), (aux_sym__stmt_token3, 340), (aux_sym_if_stmt_token1, 342),
     (aux_sym_case_stmt_token1, 344), (aux_sym_for_stmt_token1, 346),
     (aux_sym_while_stmt_token1, 348), (aux_sym_repeat_stmt_token1, 350),
     (aux_sym_raise_stmt_token1, 352), (aux_sym_try_stmt_token1, 354),
     (aux_sym_try_stmt_token2, 356), (aux_sym_catch_clause_token1, 356),
     (aux_sym_finally_clause_token1, 356), (sym_ld_rung, 2102), (sym_fbd_network, 2104),
     (sym_c_style_comment, 3), (sym_pascal_style_comment, 3), (sym_pragma, 3)]"

lemma ts_parse_row_889_scan: "row_scan tokens_63_2 0 ts_parse_row_889 = Some (Suc (Suc (Suc (Suc 0))))"
  unfolding ts_parse_row_889_def by simp

text \<open>Lines 155729 to 155835.\<close>

definition ts_parse_row_890 :: parse_row where
  "ts_parse_row_890 =
    [(sym_ERR_assign_func_call, 7530), (sym_ERR_unexpected_this_in_path, 2372),
     (sym_ERR_unexpected_super_in_path, 2372), (sym_ERR_var_access_not_allowed, 3266),
     (sym_ERR_var_config_not_allowed, 3266), (sym_ERR_var_external_not_allowed, 3266),
     (sym_ERR_var_global_not_allowed, 3266), (sym_ERR_method_decl_in_body, 3150),
     (sym_extern_pragma, 7490), (sym_wasm_pragma, 3150), (sym_warn_pragma, 7490),
     (sym_allow_pragma, 3140), (sym_test_pragma, 7490), (sym_once_pragma, 7490),
     (sym_must_call_pragma, 7490), (sym_export_pragma, 7490), (sym_pou_pragma, 7194),
     (sym_direct_variable, 7675), (sym_deref_expression, 2373), (sym_variable, 7599),
     (sym_var_access, 2373), (sym_input_decls, 3266), (sym_output_decls, 3266),
     (sym_in_out_decls, 3266), (sym_var_decls, 3266), (sym_temp_var_decls, 3266),
     (sym_external_var_decls, 3248), (sym_global_var_decls, 2947), (sym__func_variables, 963),
     (sym_func_body, 8801), (sym_method_decl, 3159), (sym_prog_access_decls, 3043),
     (sym_config_init, 3047), (sym_using_directive, 891), (sym_variable_access, 7530),
     (sym_func_call, 2961), (sym_stmt_list, 8165), (sym__stmt, 2024), (sym_assign, 3150),
     (sym_if_stmt, 3150), (sym_case_stmt, 3150), (sym_for_stmt, 3150), (sym_while_stmt, 3150),
     (sym_repeat_stmt, 3150), (sym_raise_stmt, 3150), (sym_try_stmt, 3150),
     (sym_ERR_clause_outside_try, 3150), (sym_begin_path_expression, 2943), (sym_invocation, 2934),
     (sym_any_invocation, 2935), (sym_this_invocation, 2641), (sym_super_invocation, 2641),
     (sym_super_body_invocation, 2935), (sym_path_expression, 2627), (sym_field_expression, 2373),
     (sym_index_expression, 2373), (sym_ladder_diagram, 8165), (sym_fb_diagram, 8165),
     (aux_sym_func_decl_repeat1, 7194), (aux_sym_func_decl_repeat2, 891),
     (aux_sym_func_decl_repeat3, 963), (aux_sym_stmt_list_repeat1, 2024),
     (aux_sym_ladder_diagram_repeat1, 7628), (aux_sym_fb_diagram_repeat1, 7633),
     (sym_identifier, 298), (aux_sym_ERR_unexpected_this_in_path_token1, 304),
     (aux_sym_ERR_unexpected_super_in_path_token1, 306), (sym_line_comment, 3),
     (anon_sym_LBRACE, 308), (aux_sym_test_pragma_token1, 9), (aux_sym_once_pragma_token1, 11),
     (aux_sym_must_call_pragma_token1, 13), (aux_sym_export_pragma_token1, 15),
     (anon_sym_SEMI, 310), (anon_sym_PERCENT, 312), (aux_sym_input_decls_token1, 2094),
     (aux_sym_output_decls_token1, 2096), (aux_sym_in_out_decls_token1, 318),
     (aux_sym_var_decls_token1, 2098), (aux_sym_temp_var_decls_token1, 322),
     (aux_sym_external_var_decls_token1, 324), (aux_sym_global_var_decls_token1, 326),
     (aux_sym_func_decl_token2, 2128), (aux_sym_method_decl_token1, 330),
     (aux_sym_prog_access_decls_token1, 332), (aux_sym_config_init_token1, 336),
     (aux_sym_using_directive_token1, 338), (aux_sym__stmt_token1, 340),
     (aux_sym__stmt_token2, 340), (aux_sym__stmt_token3, 340), (aux_sym_if_stmt_token1, 342),
     (aux_sym_case_stmt_token1, 344), (aux_sym_for_stmt_token1, 346),
     (aux_sym_while_stmt_token1, 348), (aux_sym_repeat_stmt_token1, 350),
     (aux_sym_raise_stmt_token1, 352), (aux_sym_try_stmt_token1, 354),
     (aux_sym_try_stmt_token2, 356), (aux_sym_catch_clause_token1, 356),
     (aux_sym_finally_clause_token1, 356), (sym_ld_rung, 2102), (sym_fbd_network, 2104),
     (sym_c_style_comment, 3), (sym_pascal_style_comment, 3), (sym_pragma, 3)]"

lemma ts_parse_row_890_scan: "row_scan tokens_63_2 0 ts_parse_row_890 = Some (Suc (Suc (Suc (Suc 0))))"
  unfolding ts_parse_row_890_def by simp

text \<open>Lines 155836 to 155942.\<close>

definition ts_parse_row_891 :: parse_row where
  "ts_parse_row_891 =
    [(sym_ERR_assign_func_call, 7530), (sym_ERR_unexpected_this_in_path, 2372),
     (sym_ERR_unexpected_super_in_path, 2372), (sym_ERR_var_access_not_allowed, 3266),
     (sym_ERR_var_config_not_allowed, 3266), (sym_ERR_var_external_not_allowed, 3266),
     (sym_ERR_var_global_not_allowed, 3266), (sym_ERR_method_decl_in_body, 3150),
     (sym_extern_pragma, 7490), (sym_wasm_pragma, 3150), (sym_warn_pragma, 7490),
     (sym_allow_pragma, 3140), (sym_test_pragma, 7490), (sym_once_pragma, 7490),
     (sym_must_call_pragma, 7490), (sym_export_pragma, 7490), (sym_pou_pragma, 7194),
     (sym_direct_variable, 7675), (sym_deref_expression, 2373), (sym_variable, 7599),
     (sym_var_access, 2373), (sym_input_decls, 3266), (sym_output_decls, 3266),
     (sym_in_out_decls, 3266), (sym_var_decls, 3266), (sym_temp_var_decls, 3266),
     (sym_external_var_decls, 3248), (sym_global_var_decls, 2947), (sym__func_variables, 984),
     (sym_func_body, 8963), (sym_method_decl, 3159), (sym_prog_access_decls, 3043),
     (sym_config_init, 3047), (sym_using_directive, 2991), (sym_variable_access, 7530),
     (sym_func_call, 2961), (sym_stmt_list, 8165), (sym__stmt, 2024), (sym_assign, 3150),
     (sym_if_stmt, 3150), (sym_case_stmt, 3150), (sym_for_stmt, 3150), (sym_while_stmt, 3150),
     (sym_repeat_stmt, 3150), (sym_raise_stmt, 3150), (sym_try_stmt, 3150),
     (sym_ERR_clause_outside_try, 3150), (sym_begin_path_expression, 2943), (sym_invocation, 2934),
     (sym_any_invocation, 2935), (sym_this_invocation, 2641), (sym_super_invocation, 2641),
     (sym_super_body_invocation, 2935), (sym_path_expression, 2627), (sym_field_expression, 2373),
     (sym_index_expression, 2373), (sym_ladder_diagram, 8165), (sym_fb_diagram, 8165),
     (aux_sym_func_decl_repeat1, 7194), (aux_sym_func_decl_repeat2, 2991),
     (aux_sym_func_decl_repeat3, 984), (aux_sym_stmt_list_repeat1, 2024),
     (aux_sym_ladder_diagram_repeat1, 7628), (aux_sym_fb_diagram_repeat1, 7633),
     (sym_identifier, 298), (aux_sym_ERR_unexpected_this_in_path_token1, 304),
     (aux_sym_ERR_unexpected_super_in_path_token1, 306), (sym_line_comment, 3),
     (anon_sym_LBRACE, 308), (aux_sym_test_pragma_token1, 9), (aux_sym_once_pragma_token1, 11),
     (aux_sym_must_call_pragma_token1, 13), (aux_sym_export_pragma_token1, 15),
     (anon_sym_SEMI, 310), (anon_sym_PERCENT, 312), (aux_sym_input_decls_token1, 2094),
     (aux_sym_output_decls_token1, 2096), (aux_sym_in_out_decls_token1, 318),
     (aux_sym_var_decls_token1, 2098), (aux_sym_temp_var_decls_token1, 322),
     (aux_sym_external_var_decls_token1, 324), (aux_sym_global_var_decls_token1, 326),
     (aux_sym_func_decl_token2, 2130), (aux_sym_method_decl_token1, 330),
     (aux_sym_prog_access_decls_token1, 332), (aux_sym_config_init_token1, 336),
     (aux_sym_using_directive_token1, 338), (aux_sym__stmt_token1, 340),
     (aux_sym__stmt_token2, 340), (aux_sym__stmt_token3, 340), (aux_sym_if_stmt_token1, 342),
     (aux_sym_case_stmt_token1, 344), (aux_sym_for_stmt_token1, 346),
     (aux_sym_while_stmt_token1, 348), (aux_sym_repeat_stmt_token1, 350),
     (aux_sym_raise_stmt_token1, 352), (aux_sym_try_stmt_token1, 354),
     (aux_sym_try_stmt_token2, 356), (aux_sym_catch_clause_token1, 356),
     (aux_sym_finally_clause_token1, 356), (sym_ld_rung, 2102), (sym_fbd_network, 2104),
     (sym_c_style_comment, 3), (sym_pascal_style_comment, 3), (sym_pragma, 3)]"

lemma ts_parse_row_891_scan: "row_scan tokens_63_2 0 ts_parse_row_891 = Some (Suc (Suc (Suc (Suc 0))))"
  unfolding ts_parse_row_891_def by simp

text \<open>Lines 155943 to 156049.\<close>

definition ts_parse_row_892 :: parse_row where
  "ts_parse_row_892 =
    [(sym_ERR_assign_func_call, 7530), (sym_ERR_unexpected_this_in_path, 2372),
     (sym_ERR_unexpected_super_in_path, 2372), (sym_ERR_var_access_not_allowed, 3266),
     (sym_ERR_var_config_not_allowed, 3266), (sym_ERR_var_external_not_allowed, 3266),
     (sym_ERR_var_global_not_allowed, 3266), (sym_ERR_method_decl_in_body, 3150),
     (sym_extern_pragma, 7490), (sym_wasm_pragma, 3150), (sym_warn_pragma, 7490),
     (sym_allow_pragma, 3140), (sym_test_pragma, 7490), (sym_once_pragma, 7490),
     (sym_must_call_pragma, 7490), (sym_export_pragma, 7490), (sym_pou_pragma, 7194),
     (sym_direct_variable, 7675), (sym_deref_expression, 2373), (sym_variable, 7599),
     (sym_var_access, 2373), (sym_input_decls, 3266), (sym_output_decls, 3266),
     (sym_in_out_decls, 3266), (sym_var_decls, 3266), (sym_temp_var_decls, 3266),
     (sym_external_var_decls, 3248), (sym_global_var_decls, 2947), (sym__func_variables, 1045),
     (sym_func_body, 10377), (sym_method_decl, 3159), (sym_prog_access_decls, 3043),
     (sym_config_init, 3047), (sym_using_directive, 2991), (sym_variable_access, 7530),
     (sym_func_call, 2961), (sym_stmt_list, 8165), (sym__stmt, 2024), (sym_assign, 3150),
     (sym_if_stmt, 3150), (sym_case_stmt, 3150), (sym_for_stmt, 3150), (sym_while_stmt, 3150),
     (sym_repeat_stmt, 3150), (sym_raise_stmt, 3150), (sym_try_stmt, 3150),
     (sym_ERR_clause_outside_try, 3150), (sym_begin_path_expression, 2943), (sym_invocation, 2934),
     (sym_any_invocation, 2935), (sym_this_invocation, 2641), (sym_super_invocation, 2641),
     (sym_super_body_invocation, 2935), (sym_path_expression, 2627), (sym_field_expression, 2373),
     (sym_index_expression, 2373), (sym_ladder_diagram, 8165), (sym_fb_diagram, 8165),
     (aux_sym_func_decl_repeat1, 7194), (aux_sym_func_decl_repeat2, 2991),
     (aux_sym_func_decl_repeat3, 1045), (aux_sym_stmt_list_repeat1, 2024),
     (aux_sym_ladder_diagram_repeat1, 7628), (aux_sym_fb_diagram_repeat1, 7633),
     (sym_identifier, 298), (aux_sym_ERR_unexpected_this_in_path_token1, 304),
     (aux_sym_ERR_unexpected_super_in_path_token1, 306), (sym_line_comment, 3),
     (anon_sym_LBRACE, 308), (aux_sym_test_pragma_token1, 9), (aux_sym_once_pragma_token1, 11),
     (aux_sym_must_call_pragma_token1, 13), (aux_sym_export_pragma_token1, 15),
     (anon_sym_SEMI, 310), (anon_sym_PERCENT, 312), (aux_sym_input_decls_token1, 2094),
     (aux_sym_output_decls_token1, 2096), (aux_sym_in_out_decls_token1, 318),
     (aux_sym_var_decls_token1, 2098), (aux_sym_temp_var_decls_token1, 322),
     (aux_sym_external_var_decls_token1, 324), (aux_sym_global_var_decls_token1, 326),
     (aux_sym_func_decl_token2, 2132), (aux_sym_method_decl_token1, 330),
     (aux_sym_prog_access_decls_token1, 332), (aux_sym_config_init_token1, 336),
     (aux_sym_using_directive_token1, 338), (aux_sym__stmt_token1, 340),
     (aux_sym__stmt_token2, 340), (aux_sym__stmt_token3, 340), (aux_sym_if_stmt_token1, 342),
     (aux_sym_case_stmt_token1, 344), (aux_sym_for_stmt_token1, 346),
     (aux_sym_while_stmt_token1, 348), (aux_sym_repeat_stmt_token1, 350),
     (aux_sym_raise_stmt_token1, 352), (aux_sym_try_stmt_token1, 354),
     (aux_sym_try_stmt_token2, 356), (aux_sym_catch_clause_token1, 356),
     (aux_sym_finally_clause_token1, 356), (sym_ld_rung, 2102), (sym_fbd_network, 2104),
     (sym_c_style_comment, 3), (sym_pascal_style_comment, 3), (sym_pragma, 3)]"

lemma ts_parse_row_892_scan: "row_scan tokens_63_2 0 ts_parse_row_892 = Some (Suc (Suc (Suc (Suc 0))))"
  unfolding ts_parse_row_892_def by simp

text \<open>Lines 156050 to 156156.\<close>

definition ts_parse_row_893 :: parse_row where
  "ts_parse_row_893 =
    [(sym_ERR_assign_func_call, 7530), (sym_ERR_unexpected_this_in_path, 2372),
     (sym_ERR_unexpected_super_in_path, 2372), (sym_ERR_var_access_not_allowed, 3266),
     (sym_ERR_var_config_not_allowed, 3266), (sym_ERR_var_external_not_allowed, 3266),
     (sym_ERR_var_global_not_allowed, 3266), (sym_ERR_method_decl_in_body, 3150),
     (sym_extern_pragma, 7490), (sym_wasm_pragma, 3150), (sym_warn_pragma, 7490),
     (sym_allow_pragma, 3140), (sym_test_pragma, 7490), (sym_once_pragma, 7490),
     (sym_must_call_pragma, 7490), (sym_export_pragma, 7490), (sym_pou_pragma, 7194),
     (sym_direct_variable, 7675), (sym_deref_expression, 2373), (sym_variable, 7599),
     (sym_var_access, 2373), (sym_input_decls, 3266), (sym_output_decls, 3266),
     (sym_in_out_decls, 3266), (sym_var_decls, 3266), (sym_temp_var_decls, 3266),
     (sym_external_var_decls, 3248), (sym_global_var_decls, 2947), (sym__func_variables, 1044),
     (sym_func_body, 10439), (sym_method_decl, 3159), (sym_prog_access_decls, 3043),
     (sym_config_init, 3047), (sym_using_directive, 889), (sym_variable_access, 7530),
     (sym_func_call, 2961), (sym_stmt_list, 8165), (sym__stmt, 2024), (sym_assign, 3150),
     (sym_if_stmt, 3150), (sym_case_stmt, 3150), (sym_for_stmt, 3150), (sym_while_stmt, 3150),
     (sym_repeat_stmt, 3150), (sym_raise_stmt, 3150), (sym_try_stmt, 3150),
     (sym_ERR_clause_outside_try, 3150), (sym_begin_path_expression, 2943), (sym_invocation, 2934),
     (sym_any_invocation, 2935), (sym_this_invocation, 2641), (sym_super_invocation, 2641),
     (sym_super_body_invocation, 2935), (sym_path_expression, 2627), (sym_field_expression, 2373),
     (sym_index_expression, 2373), (sym_ladder_diagram, 8165), (sym_fb_diagram, 8165),
     (aux_sym_func_decl_repeat1, 7194), (aux_sym_func_decl_repeat2, 889),
     (aux_sym_func_decl_repeat3, 1044), (aux_sym_stmt_list_repeat1, 2024),
     (aux_sym_ladder_diagram_repeat1, 7628), (aux_sym_fb_diagram_repeat1, 7633),
     (sym_identifier, 298), (aux_sym_ERR_unexpected_this_in_path_token1, 304),
     (aux_sym_ERR_unexpected_super_in_path_token1, 306), (sym_line_comment, 3),
     (anon_sym_LBRACE, 308), (aux_sym_test_pragma_token1, 9), (aux_sym_once_pragma_token1, 11),
     (aux_sym_must_call_pragma_token1, 13), (aux_sym_export_pragma_token1, 15),
     (anon_sym_SEMI, 310), (anon_sym_PERCENT, 312), (aux_sym_input_decls_token1, 2094),
     (aux_sym_output_decls_token1, 2096), (aux_sym_in_out_decls_token1, 318),
     (aux_sym_var_decls_token1, 2098), (aux_sym_temp_var_decls_token1, 322),
     (aux_sym_external_var_decls_token1, 324), (aux_sym_global_var_decls_token1, 326),
     (aux_sym_func_decl_token2, 2134), (aux_sym_method_decl_token1, 330),
     (aux_sym_prog_access_decls_token1, 332), (aux_sym_config_init_token1, 336),
     (aux_sym_using_directive_token1, 338), (aux_sym__stmt_token1, 340),
     (aux_sym__stmt_token2, 340), (aux_sym__stmt_token3, 340), (aux_sym_if_stmt_token1, 342),
     (aux_sym_case_stmt_token1, 344), (aux_sym_for_stmt_token1, 346),
     (aux_sym_while_stmt_token1, 348), (aux_sym_repeat_stmt_token1, 350),
     (aux_sym_raise_stmt_token1, 352), (aux_sym_try_stmt_token1, 354),
     (aux_sym_try_stmt_token2, 356), (aux_sym_catch_clause_token1, 356),
     (aux_sym_finally_clause_token1, 356), (sym_ld_rung, 2102), (sym_fbd_network, 2104),
     (sym_c_style_comment, 3), (sym_pascal_style_comment, 3), (sym_pragma, 3)]"

lemma ts_parse_row_893_scan: "row_scan tokens_63_2 0 ts_parse_row_893 = Some (Suc (Suc (Suc (Suc 0))))"
  unfolding ts_parse_row_893_def by simp

text \<open>Lines 156157 to 156263.\<close>

definition ts_parse_row_894 :: parse_row where
  "ts_parse_row_894 =
    [(sym_ERR_assign_func_call, 7530), (sym_ERR_unexpected_this_in_path, 2372),
     (sym_ERR_unexpected_super_in_path, 2372), (sym_ERR_var_access_not_allowed, 3266),
     (sym_ERR_var_config_not_allowed, 3266), (sym_ERR_var_external_not_allowed, 3266),
     (sym_ERR_var_global_not_allowed, 3266), (sym_ERR_method_decl_in_body, 3150),
     (sym_extern_pragma, 7490), (sym_wasm_pragma, 3150), (sym_warn_pragma, 7490),
     (sym_allow_pragma, 3140), (sym_test_pragma, 7490), (sym_once_pragma, 7490),
     (sym_must_call_pragma, 7490), (sym_export_pragma, 7490), (sym_pou_pragma, 7194),
     (sym_direct_variable, 7675), (sym_deref_expression, 2373), (sym_variable, 7599),
     (sym_var_access, 2373), (sym_input_decls, 3266), (sym_output_decls, 3266),
     (sym_in_out_decls, 3266), (sym_var_decls, 3266), (sym_temp_var_decls, 3266),
     (sym_external_var_decls, 3248), (sym_global_var_decls, 2947), (sym__func_variables, 951),
     (sym_func_body, 9636), (sym_method_decl, 3159), (sym_prog_access_decls, 3043),
     (sym_config_init, 3047), (sym_using_directive, 896), (sym_variable_access, 7530),
     (sym_func_call, 2961), (sym_stmt_list, 8165), (sym__stmt, 2024), (sym_assign, 3150),
     (sym_if_stmt, 3150), (sym_case_stmt, 3150), (sym_for_stmt, 3150), (sym_while_stmt, 3150),
     (sym_repeat_stmt, 3150), (sym_raise_stmt, 3150), (sym_try_stmt, 3150),
     (sym_ERR_clause_outside_try, 3150), (sym_begin_path_expression, 2943), (sym_invocation, 2934),
     (sym_any_invocation, 2935), (sym_this_invocation, 2641), (sym_super_invocation, 2641),
     (sym_super_body_invocation, 2935), (sym_path_expression, 2627), (sym_field_expression, 2373),
     (sym_index_expression, 2373), (sym_ladder_diagram, 8165), (sym_fb_diagram, 8165),
     (aux_sym_func_decl_repeat1, 7194), (aux_sym_func_decl_repeat2, 896),
     (aux_sym_func_decl_repeat3, 951), (aux_sym_stmt_list_repeat1, 2024),
     (aux_sym_ladder_diagram_repeat1, 7628), (aux_sym_fb_diagram_repeat1, 7633),
     (sym_identifier, 298), (aux_sym_ERR_unexpected_this_in_path_token1, 304),
     (aux_sym_ERR_unexpected_super_in_path_token1, 306), (sym_line_comment, 3),
     (anon_sym_LBRACE, 308), (aux_sym_test_pragma_token1, 9), (aux_sym_once_pragma_token1, 11),
     (aux_sym_must_call_pragma_token1, 13), (aux_sym_export_pragma_token1, 15),
     (anon_sym_SEMI, 310), (anon_sym_PERCENT, 312), (aux_sym_input_decls_token1, 2094),
     (aux_sym_output_decls_token1, 2096), (aux_sym_in_out_decls_token1, 318),
     (aux_sym_var_decls_token1, 2098), (aux_sym_temp_var_decls_token1, 322),
     (aux_sym_external_var_decls_token1, 324), (aux_sym_global_var_decls_token1, 326),
     (aux_sym_func_decl_token2, 2136), (aux_sym_method_decl_token1, 330),
     (aux_sym_prog_access_decls_token1, 332), (aux_sym_config_init_token1, 336),
     (aux_sym_using_directive_token1, 338), (aux_sym__stmt_token1, 340),
     (aux_sym__stmt_token2, 340), (aux_sym__stmt_token3, 340), (aux_sym_if_stmt_token1, 342),
     (aux_sym_case_stmt_token1, 344), (aux_sym_for_stmt_token1, 346),
     (aux_sym_while_stmt_token1, 348), (aux_sym_repeat_stmt_token1, 350),
     (aux_sym_raise_stmt_token1, 352), (aux_sym_try_stmt_token1, 354),
     (aux_sym_try_stmt_token2, 356), (aux_sym_catch_clause_token1, 356),
     (aux_sym_finally_clause_token1, 356), (sym_ld_rung, 2102), (sym_fbd_network, 2104),
     (sym_c_style_comment, 3), (sym_pascal_style_comment, 3), (sym_pragma, 3)]"

lemma ts_parse_row_894_scan: "row_scan tokens_63_2 0 ts_parse_row_894 = Some (Suc (Suc (Suc (Suc 0))))"
  unfolding ts_parse_row_894_def by simp

text \<open>Lines 156264 to 156370.\<close>

definition ts_parse_row_895 :: parse_row where
  "ts_parse_row_895 =
    [(sym_ERR_assign_func_call, 7530), (sym_ERR_unexpected_this_in_path, 2372),
     (sym_ERR_unexpected_super_in_path, 2372), (sym_ERR_var_access_not_allowed, 3266),
     (sym_ERR_var_config_not_allowed, 3266), (sym_ERR_var_external_not_allowed, 3266),
     (sym_ERR_var_global_not_allowed, 3266), (sym_ERR_method_decl_in_body, 3150),
     (sym_extern_pragma, 7490), (sym_wasm_pragma, 3150), (sym_warn_pragma, 7490),
     (sym_allow_pragma, 3140), (sym_test_pragma, 7490), (sym_once_pragma, 7490),
     (sym_must_call_pragma, 7490), (sym_export_pragma, 7490), (sym_pou_pragma, 7194),
     (sym_direct_variable, 7675), (sym_deref_expression, 2373), (sym_variable, 7599),
     (sym_var_access, 2373), (sym_input_decls, 3266), (sym_output_decls, 3266),
     (sym_in_out_decls, 3266), (sym_var_decls, 3266), (sym_temp_var_decls, 3266),
     (sym_external_var_decls, 3248), (sym_global_var_decls, 2947), (sym__func_variables, 975),
     (sym_func_body, 9775), (sym_method_decl, 3159), (sym_prog_access_decls, 3043),
     (sym_config_init, 3047), (sym_using_directive, 2991), (sym_variable_access, 7530),
     (sym_func_call, 2961), (sym_stmt_list, 8165), (sym__stmt, 2024), (sym_assign, 3150),
     (sym_if_stmt, 3150), (sym_case_stmt, 3150), (sym_for_stmt, 3150), (sym_while_stmt, 3150),
     (sym_repeat_stmt, 3150), (sym_raise_stmt, 3150), (sym_try_stmt, 3150),
     (sym_ERR_clause_outside_try, 3150), (sym_begin_path_expression, 2943), (sym_invocation, 2934),
     (sym_any_invocation, 2935), (sym_this_invocation, 2641), (sym_super_invocation, 2641),
     (sym_super_body_invocation, 2935), (sym_path_expression, 2627), (sym_field_expression, 2373),
     (sym_index_expression, 2373), (sym_ladder_diagram, 8165), (sym_fb_diagram, 8165),
     (aux_sym_func_decl_repeat1, 7194), (aux_sym_func_decl_repeat2, 2991),
     (aux_sym_func_decl_repeat3, 975), (aux_sym_stmt_list_repeat1, 2024),
     (aux_sym_ladder_diagram_repeat1, 7628), (aux_sym_fb_diagram_repeat1, 7633),
     (sym_identifier, 298), (aux_sym_ERR_unexpected_this_in_path_token1, 304),
     (aux_sym_ERR_unexpected_super_in_path_token1, 306), (sym_line_comment, 3),
     (anon_sym_LBRACE, 308), (aux_sym_test_pragma_token1, 9), (aux_sym_once_pragma_token1, 11),
     (aux_sym_must_call_pragma_token1, 13), (aux_sym_export_pragma_token1, 15),
     (anon_sym_SEMI, 310), (anon_sym_PERCENT, 312), (aux_sym_input_decls_token1, 2094),
     (aux_sym_output_decls_token1, 2096), (aux_sym_in_out_decls_token1, 318),
     (aux_sym_var_decls_token1, 2098), (aux_sym_temp_var_decls_token1, 322),
     (aux_sym_external_var_decls_token1, 324), (aux_sym_global_var_decls_token1, 326),
     (aux_sym_func_decl_token2, 2138), (aux_sym_method_decl_token1, 330),
     (aux_sym_prog_access_decls_token1, 332), (aux_sym_config_init_token1, 336),
     (aux_sym_using_directive_token1, 338), (aux_sym__stmt_token1, 340),
     (aux_sym__stmt_token2, 340), (aux_sym__stmt_token3, 340), (aux_sym_if_stmt_token1, 342),
     (aux_sym_case_stmt_token1, 344), (aux_sym_for_stmt_token1, 346),
     (aux_sym_while_stmt_token1, 348), (aux_sym_repeat_stmt_token1, 350),
     (aux_sym_raise_stmt_token1, 352), (aux_sym_try_stmt_token1, 354),
     (aux_sym_try_stmt_token2, 356), (aux_sym_catch_clause_token1, 356),
     (aux_sym_finally_clause_token1, 356), (sym_ld_rung, 2102), (sym_fbd_network, 2104),
     (sym_c_style_comment, 3), (sym_pascal_style_comment, 3), (sym_pragma, 3)]"

lemma ts_parse_row_895_scan: "row_scan tokens_63_2 0 ts_parse_row_895 = Some (Suc (Suc (Suc (Suc 0))))"
  unfolding ts_parse_row_895_def by simp

text \<open>Lines 156371 to 156477.\<close>

definition ts_parse_row_896 :: parse_row where
  "ts_parse_row_896 =
    [(sym_ERR_assign_func_call, 7530), (sym_ERR_unexpected_this_in_path, 2372),
     (sym_ERR_unexpected_super_in_path, 2372), (sym_ERR_var_access_not_allowed, 3266),
     (sym_ERR_var_config_not_allowed, 3266), (sym_ERR_var_external_not_allowed, 3266),
     (sym_ERR_var_global_not_allowed, 3266), (sym_ERR_method_decl_in_body, 3150),
     (sym_extern_pragma, 7490), (sym_wasm_pragma, 3150), (sym_warn_pragma, 7490),
     (sym_allow_pragma, 3140), (sym_test_pragma, 7490), (sym_once_pragma, 7490),
     (sym_must_call_pragma, 7490), (sym_export_pragma, 7490), (sym_pou_pragma, 7194),
     (sym_direct_variable, 7675), (sym_deref_expression, 2373), (sym_variable, 7599),
     (sym_var_access, 2373), (sym_input_decls, 3266), (sym_output_decls, 3266),
     (sym_in_out_decls, 3266), (sym_var_decls, 3266), (sym_temp_var_decls, 3266),
     (sym_external_var_decls, 3248), (sym_global_var_decls, 2947), (sym__func_variables, 983),
     (sym_func_body, 9122), (sym_method_decl, 3159), (sym_prog_access_decls, 3043),
     (sym_config_init, 3047), (sym_using_directive, 2991), (sym_variable_access, 7530),
     (sym_func_call, 2961), (sym_stmt_list, 8165), (sym__stmt, 2024), (sym_assign, 3150),
     (sym_if_stmt, 3150), (sym_case_stmt, 3150), (sym_for_stmt, 3150), (sym_while_stmt, 3150),
     (sym_repeat_stmt, 3150), (sym_raise_stmt, 3150), (sym_try_stmt, 3150),
     (sym_ERR_clause_outside_try, 3150), (sym_begin_path_expression, 2943), (sym_invocation, 2934),
     (sym_any_invocation, 2935), (sym_this_invocation, 2641), (sym_super_invocation, 2641),
     (sym_super_body_invocation, 2935), (sym_path_expression, 2627), (sym_field_expression, 2373),
     (sym_index_expression, 2373), (sym_ladder_diagram, 8165), (sym_fb_diagram, 8165),
     (aux_sym_func_decl_repeat1, 7194), (aux_sym_func_decl_repeat2, 2991),
     (aux_sym_func_decl_repeat3, 983), (aux_sym_stmt_list_repeat1, 2024),
     (aux_sym_ladder_diagram_repeat1, 7628), (aux_sym_fb_diagram_repeat1, 7633),
     (sym_identifier, 298), (aux_sym_ERR_unexpected_this_in_path_token1, 304),
     (aux_sym_ERR_unexpected_super_in_path_token1, 306), (sym_line_comment, 3),
     (anon_sym_LBRACE, 308), (aux_sym_test_pragma_token1, 9), (aux_sym_once_pragma_token1, 11),
     (aux_sym_must_call_pragma_token1, 13), (aux_sym_export_pragma_token1, 15),
     (anon_sym_SEMI, 310), (anon_sym_PERCENT, 312), (aux_sym_input_decls_token1, 2094),
     (aux_sym_output_decls_token1, 2096), (aux_sym_in_out_decls_token1, 318),
     (aux_sym_var_decls_token1, 2098), (aux_sym_temp_var_decls_token1, 322),
     (aux_sym_external_var_decls_token1, 324), (aux_sym_global_var_decls_token1, 326),
     (aux_sym_func_decl_token2, 2140), (aux_sym_method_decl_token1, 330),
     (aux_sym_prog_access_decls_token1, 332), (aux_sym_config_init_token1, 336),
     (aux_sym_using_directive_token1, 338), (aux_sym__stmt_token1, 340),
     (aux_sym__stmt_token2, 340), (aux_sym__stmt_token3, 340), (aux_sym_if_stmt_token1, 342),
     (aux_sym_case_stmt_token1, 344), (aux_sym_for_stmt_token1, 346),
     (aux_sym_while_stmt_token1, 348), (aux_sym_repeat_stmt_token1, 350),
     (aux_sym_raise_stmt_token1, 352), (aux_sym_try_stmt_token1, 354),
     (aux_sym_try_stmt_token2, 356), (aux_sym_catch_clause_token1, 356),
     (aux_sym_finally_clause_token1, 356), (sym_ld_rung, 2102), (sym_fbd_network, 2104),
     (sym_c_style_comment, 3), (sym_pascal_style_comment, 3), (sym_pragma, 3)]"

lemma ts_parse_row_896_scan: "row_scan tokens_63_2 0 ts_parse_row_896 = Some (Suc (Suc (Suc (Suc 0))))"
  unfolding ts_parse_row_896_def by simp

text \<open>Lines 156478 to 156583.\<close>

definition ts_parse_row_897 :: parse_row where
  "ts_parse_row_897 =
    [(sym_ERR_assign_func_call, 7530), (sym_ERR_unexpected_this_in_path, 2372),
     (sym_ERR_unexpected_super_in_path, 2372), (sym_ERR_var_global_not_allowed, 900),
     (sym_ERR_method_decl_in_body, 3150), (sym_extern_pragma, 7490), (sym_wasm_pragma, 3150),
     (sym_warn_pragma, 7490), (sym_allow_pragma, 3140), (sym_test_pragma, 7490),
     (sym_once_pragma, 7490), (sym_must_call_pragma, 7490), (sym_export_pragma, 7490),
     (sym_pou_pragma, 7194), (sym_direct_variable, 7675), (sym_deref_expression, 2373),
     (sym_variable, 7599), (sym_var_access, 2373), (sym_input_decls, 900), (sym_output_decls, 900),
     (sym_in_out_decls, 900), (sym_var_decls, 900), (sym_retain_var_decls, 900),
     (sym_temp_var_decls, 900), (sym_external_var_decls, 900), (sym_global_var_decls, 3198),
     (sym_loc_partly_var_decl, 900), (sym_no_retain_var_decls, 900), (sym_fb_body, 8544),
     (sym_method_decl, 3159), (sym_prog_access_decls, 900), (sym_SFC, 7970),
     (sym_SFC_network, 7612), (sym_initial_step, 7439), (sym_variable_access, 7530),
     (sym_func_call, 2961), (sym_stmt_list, 7970), (sym__stmt, 2024), (sym_assign, 3150),
     (sym_if_stmt, 3150), (sym_case_stmt, 3150), (sym_for_stmt, 3150), (sym_while_stmt, 3150),
     (sym_repeat_stmt, 3150), (sym_raise_stmt, 3150), (sym_try_stmt, 3150),
     (sym_ERR_clause_outside_try, 3150), (sym_begin_path_expression, 2943), (sym_invocation, 2934),
     (sym_any_invocation, 2935), (sym_this_invocation, 2641), (sym_super_invocation, 2641),
     (sym_super_body_invocation, 2935), (sym_path_expression, 2627), (sym_field_expression, 2373),
     (sym_index_expression, 2373), (sym_ladder_diagram, 7970), (sym_fb_diagram, 7970),
     (aux_sym_func_decl_repeat1, 7194), (aux_sym_prog_decl_repeat1, 900),
     (aux_sym_SFC_repeat1, 7612), (aux_sym_stmt_list_repeat1, 2024),
     (aux_sym_ladder_diagram_repeat1, 7628), (aux_sym_fb_diagram_repeat1, 7633),
     (sym_identifier, 298), (aux_sym_ERR_unexpected_this_in_path_token1, 304),
     (aux_sym_ERR_unexpected_super_in_path_token1, 306), (sym_line_comment, 3),
     (anon_sym_LBRACE, 308), (aux_sym_test_pragma_token1, 9), (aux_sym_once_pragma_token1, 11),
     (aux_sym_must_call_pragma_token1, 13), (aux_sym_export_pragma_token1, 15),
     (anon_sym_SEMI, 310), (anon_sym_PERCENT, 312), (aux_sym_input_decls_token1, 2142),
     (aux_sym_output_decls_token1, 2144), (aux_sym_in_out_decls_token1, 2146),
     (aux_sym_var_decls_token1, 2148), (aux_sym_temp_var_decls_token1, 2150),
     (aux_sym_external_var_decls_token1, 2152), (aux_sym_global_var_decls_token1, 2154),
     (aux_sym_method_decl_token1, 330), (aux_sym_prog_decl_token2, 2156),
     (aux_sym_prog_access_decls_token1, 2158), (aux_sym_initial_step_token1, 334),
     (aux_sym__stmt_token1, 340), (aux_sym__stmt_token2, 340), (aux_sym__stmt_token3, 340),
     (aux_sym_if_stmt_token1, 342), (aux_sym_case_stmt_token1, 344), (aux_sym_for_stmt_token1, 346),
     (aux_sym_while_stmt_token1, 348), (aux_sym_repeat_stmt_token1, 350),
     (aux_sym_raise_stmt_token1, 352), (aux_sym_try_stmt_token1, 354),
     (aux_sym_try_stmt_token2, 356), (aux_sym_catch_clause_token1, 356),
     (aux_sym_finally_clause_token1, 356), (sym_ld_rung, 2102), (sym_fbd_network, 2104),
     (sym_c_style_comment, 3), (sym_pascal_style_comment, 3), (sym_pragma, 3)]"

lemma ts_parse_row_897_scan: "row_scan tokens_63_2 0 ts_parse_row_897 = Some (Suc (Suc (Suc (Suc 0))))"
  unfolding ts_parse_row_897_def by simp

text \<open>Lines 156584 to 156689.\<close>

definition ts_parse_row_898 :: parse_row where
  "ts_parse_row_898 =
    [(sym_ERR_assign_func_call, 7530), (sym_ERR_unexpected_this_in_path, 2372),
     (sym_ERR_unexpected_super_in_path, 2372), (sym_ERR_var_global_not_allowed, 2536),
     (sym_ERR_method_decl_in_body, 3150), (sym_extern_pragma, 7490), (sym_wasm_pragma, 3150),
     (sym_warn_pragma, 7490), (sym_allow_pragma, 3140), (sym_test_pragma, 7490),
     (sym_once_pragma, 7490), (sym_must_call_pragma, 7490), (sym_export_pragma, 7490),
     (sym_pou_pragma, 7194), (sym_direct_variable, 7675), (sym_deref_expression, 2373),
     (sym_variable, 7599), (sym_var_access, 2373), (sym_input_decls, 2536),
     (sym_output_decls, 2536), (sym_in_out_decls, 2536), (sym_var_decls, 2536),
     (sym_retain_var_decls, 2536), (sym_temp_var_decls, 2536), (sym_external_var_decls, 2536),
     (sym_global_var_decls, 3198), (sym_loc_partly_var_decl, 2536), (sym_no_retain_var_decls, 2536),
     (sym_fb_body, 10089), (sym_method_decl, 3159), (sym_prog_access_decls, 2536), (sym_SFC, 7970),
     (sym_SFC_network, 7612), (sym_initial_step, 7439), (sym_variable_access, 7530),
     (sym_func_call, 2961), (sym_stmt_list, 7970), (sym__stmt, 2024), (sym_assign, 3150),
     (sym_if_stmt, 3150), (sym_case_stmt, 3150), (sym_for_stmt, 3150), (sym_while_stmt, 3150),
     (sym_repeat_stmt, 3150), (sym_raise_stmt, 3150), (sym_try_stmt, 3150),
     (sym_ERR_clause_outside_try, 3150), (sym_begin_path_expression, 2943), (sym_invocation, 2934),
     (sym_any_invocation, 2935), (sym_this_invocation, 2641), (sym_super_invocation, 2641),
     (sym_super_body_invocation, 2935), (sym_path_expression, 2627), (sym_field_expression, 2373),
     (sym_index_expression, 2373), (sym_ladder_diagram, 7970), (sym_fb_diagram, 7970),
     (aux_sym_func_decl_repeat1, 7194), (aux_sym_prog_decl_repeat1, 2536),
     (aux_sym_SFC_repeat1, 7612), (aux_sym_stmt_list_repeat1, 2024),
     (aux_sym_ladder_diagram_repeat1, 7628), (aux_sym_fb_diagram_repeat1, 7633),
     (sym_identifier, 298), (aux_sym_ERR_unexpected_this_in_path_token1, 304),
     (aux_sym_ERR_unexpected_super_in_path_token1, 306), (sym_line_comment, 3),
     (anon_sym_LBRACE, 308), (aux_sym_test_pragma_token1, 9), (aux_sym_once_pragma_token1, 11),
     (aux_sym_must_call_pragma_token1, 13), (aux_sym_export_pragma_token1, 15),
     (anon_sym_SEMI, 310), (anon_sym_PERCENT, 312), (aux_sym_input_decls_token1, 2142),
     (aux_sym_output_decls_token1, 2144), (aux_sym_in_out_decls_token1, 2146),
     (aux_sym_var_decls_token1, 2148), (aux_sym_temp_var_decls_token1, 2150),
     (aux_sym_external_var_decls_token1, 2152), (aux_sym_global_var_decls_token1, 2154),
     (aux_sym_method_decl_token1, 330), (aux_sym_prog_decl_token2, 2160),
     (aux_sym_prog_access_decls_token1, 2158), (aux_sym_initial_step_token1, 334),
     (aux_sym__stmt_token1, 340), (aux_sym__stmt_token2, 340), (aux_sym__stmt_token3, 340),
     (aux_sym_if_stmt_token1, 342), (aux_sym_case_stmt_token1, 344), (aux_sym_for_stmt_token1, 346),
     (aux_sym_while_stmt_token1, 348), (aux_sym_repeat_stmt_token1, 350),
     (aux_sym_raise_stmt_token1, 352), (aux_sym_try_stmt_token1, 354),
     (aux_sym_try_stmt_token2, 356), (aux_sym_catch_clause_token1, 356),
     (aux_sym_finally_clause_token1, 356), (sym_ld_rung, 2102), (sym_fbd_network, 2104),
     (sym_c_style_comment, 3), (sym_pascal_style_comment, 3), (sym_pragma, 3)]"

lemma ts_parse_row_898_scan: "row_scan tokens_63_2 0 ts_parse_row_898 = Some (Suc (Suc (Suc (Suc 0))))"
  unfolding ts_parse_row_898_def by simp

text \<open>Lines 156690 to 156795.\<close>

definition ts_parse_row_899 :: parse_row where
  "ts_parse_row_899 =
    [(sym_ERR_assign_func_call, 7530), (sym_ERR_unexpected_this_in_path, 2372),
     (sym_ERR_unexpected_super_in_path, 2372), (sym_ERR_var_global_not_allowed, 898),
     (sym_ERR_method_decl_in_body, 3150), (sym_extern_pragma, 7490), (sym_wasm_pragma, 3150),
     (sym_warn_pragma, 7490), (sym_allow_pragma, 3140), (sym_test_pragma, 7490),
     (sym_once_pragma, 7490), (sym_must_call_pragma, 7490), (sym_export_pragma, 7490),
     (sym_pou_pragma, 7194), (sym_direct_variable, 7675), (sym_deref_expression, 2373),
     (sym_variable, 7599), (sym_var_access, 2373), (sym_input_decls, 898), (sym_output_decls, 898),
     (sym_in_out_decls, 898), (sym_var_decls, 898), (sym_retain_var_decls, 898),
     (sym_temp_var_decls, 898), (sym_external_var_decls, 898), (sym_global_var_decls, 3198),
     (sym_loc_partly_var_decl, 898), (sym_no_retain_var_decls, 898), (sym_fb_body, 9616),
     (sym_method_decl, 3159), (sym_prog_access_decls, 898), (sym_SFC, 7970),
     (sym_SFC_network, 7612), (sym_initial_step, 7439), (sym_variable_access, 7530),
     (sym_func_call, 2961), (sym_stmt_list, 7970), (sym__stmt, 2024), (sym_assign, 3150),
     (sym_if_stmt, 3150), (sym_case_stmt, 3150), (sym_for_stmt, 3150), (sym_while_stmt, 3150),
     (sym_repeat_stmt, 3150), (sym_raise_stmt, 3150), (sym_try_stmt, 3150),
     (sym_ERR_clause_outside_try, 3150), (sym_begin_path_expression, 2943), (sym_invocation, 2934),
     (sym_any_invocation, 2935), (sym_this_invocation, 2641), (sym_super_invocation, 2641),
     (sym_super_body_invocation, 2935), (sym_path_expression, 2627), (sym_field_expression, 2373),
     (sym_index_expression, 2373), (sym_ladder_diagram, 7970), (sym_fb_diagram, 7970),
     (aux_sym_func_decl_repeat1, 7194), (aux_sym_prog_decl_repeat1, 898),
     (aux_sym_SFC_repeat1, 7612), (aux_sym_stmt_list_repeat1, 2024),
     (aux_sym_ladder_diagram_repeat1, 7628), (aux_sym_fb_diagram_repeat1, 7633),
     (sym_identifier, 298), (aux_sym_ERR_unexpected_this_in_path_token1, 304),
     (aux_sym_ERR_unexpected_super_in_path_token1, 306), (sym_line_comment, 3),
     (anon_sym_LBRACE, 308), (aux_sym_test_pragma_token1, 9), (aux_sym_once_pragma_token1, 11),
     (aux_sym_must_call_pragma_token1, 13), (aux_sym_export_pragma_token1, 15),
     (anon_sym_SEMI, 310), (anon_sym_PERCENT, 312), (aux_sym_input_decls_token1, 2142),
     (aux_sym_output_decls_token1, 2144), (aux_sym_in_out_decls_token1, 2146),
     (aux_sym_var_decls_token1, 2148), (aux_sym_temp_var_decls_token1, 2150),
     (aux_sym_external_var_decls_token1, 2152), (aux_sym_global_var_decls_token1, 2154),
     (aux_sym_method_decl_token1, 330), (aux_sym_prog_decl_token2, 2162),
     (aux_sym_prog_access_decls_token1, 2158), (aux_sym_initial_step_token1, 334),
     (aux_sym__stmt_token1, 340), (aux_sym__stmt_token2, 340), (aux_sym__stmt_token3, 340),
     (aux_sym_if_stmt_token1, 342), (aux_sym_case_stmt_token1, 344), (aux_sym_for_stmt_token1, 346),
     (aux_sym_while_stmt_token1, 348), (aux_sym_repeat_stmt_token1, 350),
     (aux_sym_raise_stmt_token1, 352), (aux_sym_try_stmt_token1, 354),
     (aux_sym_try_stmt_token2, 356), (aux_sym_catch_clause_token1, 356),
     (aux_sym_finally_clause_token1, 356), (sym_ld_rung, 2102), (sym_fbd_network, 2104),
     (sym_c_style_comment, 3), (sym_pascal_style_comment, 3), (sym_pragma, 3)]"

lemma ts_parse_row_899_scan: "row_scan tokens_63_2 0 ts_parse_row_899 = Some (Suc (Suc (Suc (Suc 0))))"
  unfolding ts_parse_row_899_def by simp

definition parse_rows_6 :: "parse_row list" where
  "parse_rows_6 =
    [ts_parse_row_750, ts_parse_row_751, ts_parse_row_752, ts_parse_row_753, ts_parse_row_754,
     ts_parse_row_755, ts_parse_row_756, ts_parse_row_757, ts_parse_row_758, ts_parse_row_759,
     ts_parse_row_760, ts_parse_row_761, ts_parse_row_762, ts_parse_row_763, ts_parse_row_764,
     ts_parse_row_765, ts_parse_row_766, ts_parse_row_767, ts_parse_row_768, ts_parse_row_769,
     ts_parse_row_770, ts_parse_row_771, ts_parse_row_772, ts_parse_row_773, ts_parse_row_774,
     ts_parse_row_775, ts_parse_row_776, ts_parse_row_777, ts_parse_row_778, ts_parse_row_779,
     ts_parse_row_780, ts_parse_row_781, ts_parse_row_782, ts_parse_row_783, ts_parse_row_784,
     ts_parse_row_785, ts_parse_row_786, ts_parse_row_787, ts_parse_row_788, ts_parse_row_789,
     ts_parse_row_790, ts_parse_row_791, ts_parse_row_792, ts_parse_row_793, ts_parse_row_794,
     ts_parse_row_795, ts_parse_row_796, ts_parse_row_797, ts_parse_row_798, ts_parse_row_799,
     ts_parse_row_800, ts_parse_row_801, ts_parse_row_802, ts_parse_row_803, ts_parse_row_804,
     ts_parse_row_805, ts_parse_row_806, ts_parse_row_807, ts_parse_row_808, ts_parse_row_809,
     ts_parse_row_810, ts_parse_row_811, ts_parse_row_812, ts_parse_row_813, ts_parse_row_814,
     ts_parse_row_815, ts_parse_row_816, ts_parse_row_817, ts_parse_row_818, ts_parse_row_819,
     ts_parse_row_820, ts_parse_row_821, ts_parse_row_822, ts_parse_row_823, ts_parse_row_824,
     ts_parse_row_825, ts_parse_row_826, ts_parse_row_827, ts_parse_row_828, ts_parse_row_829,
     ts_parse_row_830, ts_parse_row_831, ts_parse_row_832, ts_parse_row_833, ts_parse_row_834,
     ts_parse_row_835, ts_parse_row_836, ts_parse_row_837, ts_parse_row_838, ts_parse_row_839,
     ts_parse_row_840, ts_parse_row_841, ts_parse_row_842, ts_parse_row_843, ts_parse_row_844,
     ts_parse_row_845, ts_parse_row_846, ts_parse_row_847, ts_parse_row_848, ts_parse_row_849,
     ts_parse_row_850, ts_parse_row_851, ts_parse_row_852, ts_parse_row_853, ts_parse_row_854,
     ts_parse_row_855, ts_parse_row_856, ts_parse_row_857, ts_parse_row_858, ts_parse_row_859,
     ts_parse_row_860, ts_parse_row_861, ts_parse_row_862, ts_parse_row_863, ts_parse_row_864,
     ts_parse_row_865, ts_parse_row_866, ts_parse_row_867, ts_parse_row_868, ts_parse_row_869,
     ts_parse_row_870, ts_parse_row_871, ts_parse_row_872, ts_parse_row_873, ts_parse_row_874,
     ts_parse_row_875, ts_parse_row_876, ts_parse_row_877, ts_parse_row_878, ts_parse_row_879,
     ts_parse_row_880, ts_parse_row_881, ts_parse_row_882, ts_parse_row_883, ts_parse_row_884,
     ts_parse_row_885, ts_parse_row_886, ts_parse_row_887, ts_parse_row_888, ts_parse_row_889,
     ts_parse_row_890, ts_parse_row_891, ts_parse_row_892, ts_parse_row_893, ts_parse_row_894,
     ts_parse_row_895, ts_parse_row_896, ts_parse_row_897, ts_parse_row_898, ts_parse_row_899]"

lemmas parse_rows_6_scan =
  ts_parse_row_750_scan ts_parse_row_751_scan ts_parse_row_752_scan ts_parse_row_753_scan
  ts_parse_row_754_scan ts_parse_row_755_scan ts_parse_row_756_scan ts_parse_row_757_scan
  ts_parse_row_758_scan ts_parse_row_759_scan ts_parse_row_760_scan ts_parse_row_761_scan
  ts_parse_row_762_scan ts_parse_row_763_scan ts_parse_row_764_scan ts_parse_row_765_scan
  ts_parse_row_766_scan ts_parse_row_767_scan ts_parse_row_768_scan ts_parse_row_769_scan
  ts_parse_row_770_scan ts_parse_row_771_scan ts_parse_row_772_scan ts_parse_row_773_scan
  ts_parse_row_774_scan ts_parse_row_775_scan ts_parse_row_776_scan ts_parse_row_777_scan
  ts_parse_row_778_scan ts_parse_row_779_scan ts_parse_row_780_scan ts_parse_row_781_scan
  ts_parse_row_782_scan ts_parse_row_783_scan ts_parse_row_784_scan ts_parse_row_785_scan
  ts_parse_row_786_scan ts_parse_row_787_scan ts_parse_row_788_scan ts_parse_row_789_scan
  ts_parse_row_790_scan ts_parse_row_791_scan ts_parse_row_792_scan ts_parse_row_793_scan
  ts_parse_row_794_scan ts_parse_row_795_scan ts_parse_row_796_scan ts_parse_row_797_scan
  ts_parse_row_798_scan ts_parse_row_799_scan ts_parse_row_800_scan ts_parse_row_801_scan
  ts_parse_row_802_scan ts_parse_row_803_scan ts_parse_row_804_scan ts_parse_row_805_scan
  ts_parse_row_806_scan ts_parse_row_807_scan ts_parse_row_808_scan ts_parse_row_809_scan
  ts_parse_row_810_scan ts_parse_row_811_scan ts_parse_row_812_scan ts_parse_row_813_scan
  ts_parse_row_814_scan ts_parse_row_815_scan ts_parse_row_816_scan ts_parse_row_817_scan
  ts_parse_row_818_scan ts_parse_row_819_scan ts_parse_row_820_scan ts_parse_row_821_scan
  ts_parse_row_822_scan ts_parse_row_823_scan ts_parse_row_824_scan ts_parse_row_825_scan
  ts_parse_row_826_scan ts_parse_row_827_scan ts_parse_row_828_scan ts_parse_row_829_scan
  ts_parse_row_830_scan ts_parse_row_831_scan ts_parse_row_832_scan ts_parse_row_833_scan
  ts_parse_row_834_scan ts_parse_row_835_scan ts_parse_row_836_scan ts_parse_row_837_scan
  ts_parse_row_838_scan ts_parse_row_839_scan ts_parse_row_840_scan ts_parse_row_841_scan
  ts_parse_row_842_scan ts_parse_row_843_scan ts_parse_row_844_scan ts_parse_row_845_scan
  ts_parse_row_846_scan ts_parse_row_847_scan ts_parse_row_848_scan ts_parse_row_849_scan
  ts_parse_row_850_scan ts_parse_row_851_scan ts_parse_row_852_scan ts_parse_row_853_scan
  ts_parse_row_854_scan ts_parse_row_855_scan ts_parse_row_856_scan ts_parse_row_857_scan
  ts_parse_row_858_scan ts_parse_row_859_scan ts_parse_row_860_scan ts_parse_row_861_scan
  ts_parse_row_862_scan ts_parse_row_863_scan ts_parse_row_864_scan ts_parse_row_865_scan
  ts_parse_row_866_scan ts_parse_row_867_scan ts_parse_row_868_scan ts_parse_row_869_scan
  ts_parse_row_870_scan ts_parse_row_871_scan ts_parse_row_872_scan ts_parse_row_873_scan
  ts_parse_row_874_scan ts_parse_row_875_scan ts_parse_row_876_scan ts_parse_row_877_scan
  ts_parse_row_878_scan ts_parse_row_879_scan ts_parse_row_880_scan ts_parse_row_881_scan
  ts_parse_row_882_scan ts_parse_row_883_scan ts_parse_row_884_scan ts_parse_row_885_scan
  ts_parse_row_886_scan ts_parse_row_887_scan ts_parse_row_888_scan ts_parse_row_889_scan
  ts_parse_row_890_scan ts_parse_row_891_scan ts_parse_row_892_scan ts_parse_row_893_scan
  ts_parse_row_894_scan ts_parse_row_895_scan ts_parse_row_896_scan ts_parse_row_897_scan
  ts_parse_row_898_scan ts_parse_row_899_scan

end
