(* ===== verification/Parse_Table_7.thy ===== *)
theory Parse_Table_7
  imports Parse_Cells
begin

text \<open>
  The rows 900 to 1049 of \<open>ts_parse_table\<close> in \<open>src/crates/tree-sitter/src/parser.c\<close>, and the check of each
  against the tokens of its mode.
\<close>

text \<open>Lines 156796 to 156901.\<close>

definition ts_parse_row_900 :: parse_row where
  "ts_parse_row_900 =
    [(sym_ERR_assign_func_call, 7530), (sym_ERR_unexpected_this_in_path, 2372),
     (sym_ERR_unexpected_super_in_path, 2372), (sym_ERR_var_global_not_allowed, 2536),
     (sym_ERR_method_decl_in_body, 3150), (sym_extern_pragma, 7490), (sym_wasm_pragma, 3150),
     (sym_warn_pragma, 7490), (sym_allow_pragma, 3140), (sym_test_pragma, 7490),
     (sym_once_pragma, 7490), (sym_must_call_pragma, 7490), (sym_export_pragma, 7490),
     (sym_pou_pragma, 7194), (sym_direct_variable, 7675), (sym_deref_expression, 2373),
     (sym_variable, 7599), (sym_var_access, 2373), (sym_input_decls, 2536),
     (sym_output_decls, 2536), (sym_in_out_decls, 2536), (sym_var_decls, 2536),
     (sym_retain_var_decls, 2536), (sym_temp_var_decls, 2536), (sym_external_var_decls, 2536),
     (sym_global_var_decls, 3198), (sym_loc_partly_var_decl, 2536), (sym_no_retain_var_decls, 2536),
     (sym_fb_body, 8822), (sym_method_decl, 3159), (sym_prog_access_decls, 2536), (sym_SFC, 7970),
     (sym_SFC_network, 7612), (sym_initial_step, 7439), (sym_variable_access, 7530),
     (sym_func_call, 2961), (sym_stmt_list, 7970), (sym__stmt, 2024), (sym_assign, 3150),
     (sym_if_stmt, 3150), (sym_case_stmt, 3150), (sym_for_stmt, 3150), (sym_while_stmt, 3150),
     (sym_repeat_stmt, 3150), (sym_raise_stmt, 3150), (sym_try_stmt, 3150),
     (sym_ERR_clause_outside_try, 3150), (sym_begin_path_expression, 2943), (sym_invocation, 2934),
     (sym_any_invocation, 2935), (sym_this_invocation, 2641), (sym_super_invocation, 2641),
     (sym_super_body_invocation, 2935), (sym_path_expression, 2627), (sym_field_expression, 2373),
     (sym_index_expression, 2373), (sym_ladder_diagram, 7970), (sym_fb_diagram, 7970),
     (aux_sym_func_decl_repeat1, 7194), (aux_sym_prog_decl_repeat1, 2536),
     (aux_sym_SFC_repeat1, 7612), (aux_sym_stmt_list_repeat1, 2024),
     (aux_sym_ladder_diagram_repeat1, 7628), (aux_sym_fb_diagram_repeat1, 7633),
     (sym_identifier, 298), (aux_sym_ERR_unexpected_this_in_path_token1, 304),
     (aux_sym_ERR_unexpected_super_in_path_token1, 306), (sym_line_comment, 3),
     (anon_sym_LBRACE, 308), (aux_sym_test_pragma_token1, 9), (aux_sym_once_pragma_token1, 11),
     (aux_sym_must_call_pragma_token1, 13), (aux_sym_export_pragma_token1, 15),
     (anon_sym_SEMI, 310), (anon_sym_PERCENT, 312), (aux_sym_input_decls_token1, 2142),
     (aux_sym_output_decls_token1, 2144), (aux_sym_in_out_decls_token1, 2146),
     (aux_sym_var_decls_token1, 2148), (aux_sym_temp_var_decls_token1, 2150),
     (aux_sym_external_var_decls_token1, 2152), (aux_sym_global_var_decls_token1, 2154),
     (aux_sym_method_decl_token1, 330), (aux_sym_prog_decl_token2, 2164),
     (aux_sym_prog_access_decls_token1, 2158), (aux_sym_initial_step_token1, 334),
     (aux_sym__stmt_token1, 340), (aux_sym__stmt_token2, 340), (aux_sym__stmt_token3, 340),
     (aux_sym_if_stmt_token1, 342), (aux_sym_case_stmt_token1, 344), (aux_sym_for_stmt_token1, 346),
     (aux_sym_while_stmt_token1, 348), (aux_sym_repeat_stmt_token1, 350),
     (aux_sym_raise_stmt_token1, 352), (aux_sym_try_stmt_token1, 354),
     (aux_sym_try_stmt_token2, 356), (aux_sym_catch_clause_token1, 356),
     (aux_sym_finally_clause_token1, 356), (sym_ld_rung, 2102), (sym_fbd_network, 2104),
     (sym_c_style_comment, 3), (sym_pascal_style_comment, 3), (sym_pragma, 3)]"

lemma ts_parse_row_900_scan: "row_scan tokens_63_2 0 ts_parse_row_900 = Some (Suc (Suc (Suc (Suc 0))))"
  unfolding ts_parse_row_900_def by simp

text \<open>Lines 156902 to 157006.\<close>

definition ts_parse_row_901 :: parse_row where
  "ts_parse_row_901 =
    [(sym_ERR_assign_func_call, 7530), (sym_ERR_unexpected_this_in_path, 2372),
     (sym_ERR_unexpected_super_in_path, 2372), (sym_ERR_var_access_not_allowed, 3196),
     (sym_ERR_var_config_not_allowed, 3196), (sym_ERR_var_external_not_allowed, 3196),
     (sym_ERR_var_global_not_allowed, 3196), (sym_ERR_method_decl_in_body, 3150),
     (sym_extern_pragma, 7490), (sym_wasm_pragma, 3150), (sym_warn_pragma, 7490),
     (sym_allow_pragma, 3140), (sym_test_pragma, 7490), (sym_once_pragma, 7490),
     (sym_must_call_pragma, 7490), (sym_export_pragma, 7490), (sym_pou_pragma, 7194),
     (sym_direct_variable, 7675), (sym_deref_expression, 2373), (sym_variable, 7599),
     (sym_var_access, 2373), (sym_input_decls, 3196), (sym_output_decls, 3196),
     (sym_in_out_decls, 3196), (sym_var_decls, 3196), (sym_temp_var_decls, 3196),
     (sym_external_var_decls, 3197), (sym_global_var_decls, 2947), (sym_func_body, 10353),
     (sym_method_decl, 3159), (sym__method_decl_variables, 1063), (sym_prog_access_decls, 3043),
     (sym_config_init, 3047), (sym_variable_access, 7530), (sym_func_call, 2961),
     (sym_stmt_list, 8165), (sym__stmt, 2024), (sym_assign, 3150), (sym_if_stmt, 3150),
     (sym_case_stmt, 3150), (sym_for_stmt, 3150), (sym_while_stmt, 3150), (sym_repeat_stmt, 3150),
     (sym_raise_stmt, 3150), (sym_try_stmt, 3150), (sym_ERR_clause_outside_try, 3150),
     (sym_begin_path_expression, 2943), (sym_invocation, 2934), (sym_any_invocation, 2935),
     (sym_this_invocation, 2641), (sym_super_invocation, 2641), (sym_super_body_invocation, 2935),
     (sym_path_expression, 2627), (sym_field_expression, 2373), (sym_index_expression, 2373),
     (sym_ladder_diagram, 8165), (sym_fb_diagram, 8165), (aux_sym_func_decl_repeat1, 7194),
     (aux_sym_method_decl_repeat1, 1063), (aux_sym_stmt_list_repeat1, 2024),
     (aux_sym_ladder_diagram_repeat1, 7628), (aux_sym_fb_diagram_repeat1, 7633),
     (sym_identifier, 298), (anon_sym_COLON, 2166),
     (aux_sym_ERR_unexpected_this_in_path_token1, 304),
     (aux_sym_ERR_unexpected_super_in_path_token1, 306), (sym_line_comment, 3),
     (anon_sym_LBRACE, 308), (aux_sym_test_pragma_token1, 9), (aux_sym_once_pragma_token1, 11),
     (aux_sym_must_call_pragma_token1, 13), (aux_sym_export_pragma_token1, 15),
     (anon_sym_SEMI, 310), (anon_sym_PERCENT, 312), (aux_sym_input_decls_token1, 2094),
     (aux_sym_output_decls_token1, 2096), (aux_sym_in_out_decls_token1, 318),
     (aux_sym_var_decls_token1, 2098), (aux_sym_temp_var_decls_token1, 322),
     (aux_sym_external_var_decls_token1, 324), (aux_sym_global_var_decls_token1, 326),
     (aux_sym_method_decl_token1, 330), (aux_sym_method_decl_token3, 2168),
     (aux_sym_prog_access_decls_token1, 332), (aux_sym_config_init_token1, 336),
     (aux_sym__stmt_token1, 340), (aux_sym__stmt_token2, 340), (aux_sym__stmt_token3, 340),
     (aux_sym_if_stmt_token1, 342), (aux_sym_case_stmt_token1, 344), (aux_sym_for_stmt_token1, 346),
     (aux_sym_while_stmt_token1, 348), (aux_sym_repeat_stmt_token1, 350),
     (aux_sym_raise_stmt_token1, 352), (aux_sym_try_stmt_token1, 354),
     (aux_sym_try_stmt_token2, 356), (aux_sym_catch_clause_token1, 356),
     (aux_sym_finally_clause_token1, 356), (sym_ld_rung, 2102), (sym_fbd_network, 2104),
     (sym_c_style_comment, 3), (sym_pascal_style_comment, 3), (sym_pragma, 3)]"

lemma ts_parse_row_901_scan: "row_scan tokens_63_2 0 ts_parse_row_901 = Some (Suc (Suc (Suc (Suc 0))))"
  unfolding ts_parse_row_901_def by simp

text \<open>Lines 157007 to 157111.\<close>

definition ts_parse_row_902 :: parse_row where
  "ts_parse_row_902 =
    [(sym_ERR_assign_func_call, 7530), (sym_ERR_unexpected_this_in_path, 2372),
     (sym_ERR_unexpected_super_in_path, 2372), (sym_ERR_var_access_not_allowed, 3196),
     (sym_ERR_var_config_not_allowed, 3196), (sym_ERR_var_external_not_allowed, 3196),
     (sym_ERR_var_global_not_allowed, 3196), (sym_ERR_method_decl_in_body, 3150),
     (sym_extern_pragma, 7490), (sym_wasm_pragma, 3150), (sym_warn_pragma, 7490),
     (sym_allow_pragma, 3140), (sym_test_pragma, 7490), (sym_once_pragma, 7490),
     (sym_must_call_pragma, 7490), (sym_export_pragma, 7490), (sym_pou_pragma, 7194),
     (sym_direct_variable, 7675), (sym_deref_expression, 2373), (sym_variable, 7599),
     (sym_var_access, 2373), (sym_input_decls, 3196), (sym_output_decls, 3196),
     (sym_in_out_decls, 3196), (sym_var_decls, 3196), (sym_temp_var_decls, 3196),
     (sym_external_var_decls, 3197), (sym_global_var_decls, 2947), (sym_func_body, 9278),
     (sym_method_decl, 3159), (sym__method_decl_variables, 1040), (sym_prog_access_decls, 3043),
     (sym_config_init, 3047), (sym_variable_access, 7530), (sym_func_call, 2961),
     (sym_stmt_list, 8165), (sym__stmt, 2024), (sym_assign, 3150), (sym_if_stmt, 3150),
     (sym_case_stmt, 3150), (sym_for_stmt, 3150), (sym_while_stmt, 3150), (sym_repeat_stmt, 3150),
     (sym_raise_stmt, 3150), (sym_try_stmt, 3150), (sym_ERR_clause_outside_try, 3150),
     (sym_begin_path_expression, 2943), (sym_invocation, 2934), (sym_any_invocation, 2935),
     (sym_this_invocation, 2641), (sym_super_invocation, 2641), (sym_super_body_invocation, 2935),
     (sym_path_expression, 2627), (sym_field_expression, 2373), (sym_index_expression, 2373),
     (sym_ladder_diagram, 8165), (sym_fb_diagram, 8165), (aux_sym_func_decl_repeat1, 7194),
     (aux_sym_method_decl_repeat1, 1040), (aux_sym_stmt_list_repeat1, 2024),
     (aux_sym_ladder_diagram_repeat1, 7628), (aux_sym_fb_diagram_repeat1, 7633),
     (sym_identifier, 298), (anon_sym_COLON, 2170),
     (aux_sym_ERR_unexpected_this_in_path_token1, 304),
     (aux_sym_ERR_unexpected_super_in_path_token1, 306), (sym_line_comment, 3),
     (anon_sym_LBRACE, 308), (aux_sym_test_pragma_token1, 9), (aux_sym_once_pragma_token1, 11),
     (aux_sym_must_call_pragma_token1, 13), (aux_sym_export_pragma_token1, 15),
     (anon_sym_SEMI, 310), (anon_sym_PERCENT, 312), (aux_sym_input_decls_token1, 2094),
     (aux_sym_output_decls_token1, 2096), (aux_sym_in_out_decls_token1, 318),
     (aux_sym_var_decls_token1, 2098), (aux_sym_temp_var_decls_token1, 322),
     (aux_sym_external_var_decls_token1, 324), (aux_sym_global_var_decls_token1, 326),
     (aux_sym_method_decl_token1, 330), (aux_sym_method_decl_token3, 2172),
     (aux_sym_prog_access_decls_token1, 332), (aux_sym_config_init_token1, 336),
     (aux_sym__stmt_token1, 340), (aux_sym__stmt_token2, 340), (aux_sym__stmt_token3, 340),
     (aux_sym_if_stmt_token1, 342), (aux_sym_case_stmt_token1, 344), (aux_sym_for_stmt_token1, 346),
     (aux_sym_while_stmt_token1, 348), (aux_sym_repeat_stmt_token1, 350),
     (aux_sym_raise_stmt_token1, 352), (aux_sym_try_stmt_token1, 354),
     (aux_sym_try_stmt_token2, 356), (aux_sym_catch_clause_token1, 356),
     (aux_sym_finally_clause_token1, 356), (sym_ld_rung, 2102), (sym_fbd_network, 2104),
     (sym_c_style_comment, 3), (sym_pascal_style_comment, 3), (sym_pragma, 3)]"

lemma ts_parse_row_902_scan: "row_scan tokens_63_2 0 ts_parse_row_902 = Some (Suc (Suc (Suc (Suc 0))))"
  unfolding ts_parse_row_902_def by simp

text \<open>Lines 157112 to 157216.\<close>

definition ts_parse_row_903 :: parse_row where
  "ts_parse_row_903 =
    [(sym_ERR_assign_func_call, 7530), (sym_ERR_unexpected_this_in_path, 2372),
     (sym_ERR_unexpected_super_in_path, 2372), (sym_ERR_var_access_not_allowed, 3196),
     (sym_ERR_var_config_not_allowed, 3196), (sym_ERR_var_external_not_allowed, 3196),
     (sym_ERR_var_global_not_allowed, 3196), (sym_ERR_method_decl_in_body, 3150),
     (sym_extern_pragma, 7490), (sym_wasm_pragma, 3150), (sym_warn_pragma, 7490),
     (sym_allow_pragma, 3140), (sym_test_pragma, 7490), (sym_once_pragma, 7490),
     (sym_must_call_pragma, 7490), (sym_export_pragma, 7490), (sym_pou_pragma, 7194),
     (sym_direct_variable, 7675), (sym_deref_expression, 2373), (sym_variable, 7599),
     (sym_var_access, 2373), (sym_input_decls, 3196), (sym_output_decls, 3196),
     (sym_in_out_decls, 3196), (sym_var_decls, 3196), (sym_temp_var_decls, 3196),
     (sym_external_var_decls, 3197), (sym_global_var_decls, 2947), (sym_func_body, 10258),
     (sym_method_decl, 3159), (sym__method_decl_variables, 1100), (sym_prog_access_decls, 3043),
     (sym_config_init, 3047), (sym_variable_access, 7530), (sym_func_call, 2961),
     (sym_stmt_list, 8165), (sym__stmt, 2024), (sym_assign, 3150), (sym_if_stmt, 3150),
     (sym_case_stmt, 3150), (sym_for_stmt, 3150), (sym_while_stmt, 3150), (sym_repeat_stmt, 3150),
     (sym_raise_stmt, 3150), (sym_try_stmt, 3150), (sym_ERR_clause_outside_try, 3150),
     (sym_begin_path_expression, 2943), (sym_invocation, 2934), (sym_any_invocation, 2935),
     (sym_this_invocation, 2641), (sym_super_invocation, 2641), (sym_super_body_invocation, 2935),
     (sym_path_expression, 2627), (sym_field_expression, 2373), (sym_index_expression, 2373),
     (sym_ladder_diagram, 8165), (sym_fb_diagram, 8165), (aux_sym_func_decl_repeat1, 7194),
     (aux_sym_method_decl_repeat1, 1100), (aux_sym_stmt_list_repeat1, 2024),
     (aux_sym_ladder_diagram_repeat1, 7628), (aux_sym_fb_diagram_repeat1, 7633),
     (sym_identifier, 298), (anon_sym_COLON, 2174),
     (aux_sym_ERR_unexpected_this_in_path_token1, 304),
     (aux_sym_ERR_unexpected_super_in_path_token1, 306), (sym_line_comment, 3),
     (anon_sym_LBRACE, 308), (aux_sym_test_pragma_token1, 9), (aux_sym_once_pragma_token1, 11),
     (aux_sym_must_call_pragma_token1, 13), (aux_sym_export_pragma_token1, 15),
     (anon_sym_SEMI, 310), (anon_sym_PERCENT, 312), (aux_sym_input_decls_token1, 2094),
     (aux_sym_output_decls_token1, 2096), (aux_sym_in_out_decls_token1, 318),
     (aux_sym_var_decls_token1, 2098), (aux_sym_temp_var_decls_token1, 322),
     (aux_sym_external_var_decls_token1, 324), (aux_sym_global_var_decls_token1, 326),
     (aux_sym_method_decl_token1, 330), (aux_sym_method_decl_token3, 2176),
     (aux_sym_prog_access_decls_token1, 332), (aux_sym_config_init_token1, 336),
     (aux_sym__stmt_token1, 340), (aux_sym__stmt_token2, 340), (aux_sym__stmt_token3, 340),
     (aux_sym_if_stmt_token1, 342), (aux_sym_case_stmt_token1, 344), (aux_sym_for_stmt_token1, 346),
     (aux_sym_while_stmt_token1, 348), (aux_sym_repeat_stmt_token1, 350),
     (aux_sym_raise_stmt_token1, 352), (aux_sym_try_stmt_token1, 354),
     (aux_sym_try_stmt_token2, 356), (aux_sym_catch_clause_token1, 356),
     (aux_sym_finally_clause_token1, 356), (sym_ld_rung, 2102), (sym_fbd_network, 2104),
     (sym_c_style_comment, 3), (sym_pascal_style_comment, 3), (sym_pragma, 3)]"

lemma ts_parse_row_903_scan: "row_scan tokens_63_2 0 ts_parse_row_903 = Some (Suc (Suc (Suc (Suc 0))))"
  unfolding ts_parse_row_903_def by simp

text \<open>Lines 157217 to 157321.\<close>

definition ts_parse_row_904 :: parse_row where
  "ts_parse_row_904 =
    [(sym_ERR_assign_func_call, 7530), (sym_ERR_unexpected_this_in_path, 2372),
     (sym_ERR_unexpected_super_in_path, 2372), (sym_ERR_var_access_not_allowed, 3196),
     (sym_ERR_var_config_not_allowed, 3196), (sym_ERR_var_external_not_allowed, 3196),
     (sym_ERR_var_global_not_allowed, 3196), (sym_ERR_method_decl_in_body, 3150),
     (sym_extern_pragma, 7490), (sym_wasm_pragma, 3150), (sym_warn_pragma, 7490),
     (sym_allow_pragma, 3140), (sym_test_pragma, 7490), (sym_once_pragma, 7490),
     (sym_must_call_pragma, 7490), (sym_export_pragma, 7490), (sym_pou_pragma, 7194),
     (sym_direct_variable, 7675), (sym_deref_expression, 2373), (sym_variable, 7599),
     (sym_var_access, 2373), (sym_input_decls, 3196), (sym_output_decls, 3196),
     (sym_in_out_decls, 3196), (sym_var_decls, 3196), (sym_temp_var_decls, 3196),
     (sym_external_var_decls, 3197), (sym_global_var_decls, 2947), (sym_func_body, 9468),
     (sym_method_decl, 3159), (sym__method_decl_variables, 986), (sym_prog_access_decls, 3043),
     (sym_config_init, 3047), (sym_variable_access, 7530), (sym_func_call, 2961),
     (sym_stmt_list, 8165), (sym__stmt, 2024), (sym_assign, 3150), (sym_if_stmt, 3150),
     (sym_case_stmt, 3150), (sym_for_stmt, 3150), (sym_while_stmt, 3150), (sym_repeat_stmt, 3150),
     (sym_raise_stmt, 3150), (sym_try_stmt, 3150), (sym_ERR_clause_outside_try, 3150),
     (sym_begin_path_expression, 2943), (sym_invocation, 2934), (sym_any_invocation, 2935),
     (sym_this_invocation, 2641), (sym_super_invocation, 2641), (sym_super_body_invocation, 2935),
     (sym_path_expression, 2627), (sym_field_expression, 2373), (sym_index_expression, 2373),
     (sym_ladder_diagram, 8165), (sym_fb_diagram, 8165), (aux_sym_func_decl_repeat1, 7194),
     (aux_sym_method_decl_repeat1, 986), (aux_sym_stmt_list_repeat1, 2024),
     (aux_sym_ladder_diagram_repeat1, 7628), (aux_sym_fb_diagram_repeat1, 7633),
     (sym_identifier, 298), (anon_sym_COLON, 2178),
     (aux_sym_ERR_unexpected_this_in_path_token1, 304),
     (aux_sym_ERR_unexpected_super_in_path_token1, 306), (sym_line_comment, 3),
     (anon_sym_LBRACE, 308), (aux_sym_test_pragma_token1, 9), (aux_sym_once_pragma_token1, 11),
     (aux_sym_must_call_pragma_token1, 13), (aux_sym_export_pragma_token1, 15),
     (anon_sym_SEMI, 310), (anon_sym_PERCENT, 312), (aux_sym_input_decls_token1, 2094),
     (aux_sym_output_decls_token1, 2096), (aux_sym_in_out_decls_token1, 318),
     (aux_sym_var_decls_token1, 2098), (aux_sym_temp_var_decls_token1, 322),
     (aux_sym_external_var_decls_token1, 324), (aux_sym_global_var_decls_token1, 326),
     (aux_sym_method_decl_token1, 330), (aux_sym_method_decl_token3, 2180),
     (aux_sym_prog_access_decls_token1, 332), (aux_sym_config_init_token1, 336),
     (aux_sym__stmt_token1, 340), (aux_sym__stmt_token2, 340), (aux_sym__stmt_token3, 340),
     (aux_sym_if_stmt_token1, 342), (aux_sym_case_stmt_token1, 344), (aux_sym_for_stmt_token1, 346),
     (aux_sym_while_stmt_token1, 348), (aux_sym_repeat_stmt_token1, 350),
     (aux_sym_raise_stmt_token1, 352), (aux_sym_try_stmt_token1, 354),
     (aux_sym_try_stmt_token2, 356), (aux_sym_catch_clause_token1, 356),
     (aux_sym_finally_clause_token1, 356), (sym_ld_rung, 2102), (sym_fbd_network, 2104),
     (sym_c_style_comment, 3), (sym_pascal_style_comment, 3), (sym_pragma, 3)]"

lemma ts_parse_row_904_scan: "row_scan tokens_63_2 0 ts_parse_row_904 = Some (Suc (Suc (Suc (Suc 0))))"
  unfolding ts_parse_row_904_def by simp

text \<open>Lines 157322 to 157426.\<close>

definition ts_parse_row_905 :: parse_row where
  "ts_parse_row_905 =
    [(sym_ERR_assign_func_call, 7530), (sym_ERR_unexpected_this_in_path, 2372),
     (sym_ERR_unexpected_super_in_path, 2372), (sym_ERR_var_access_not_allowed, 3196),
     (sym_ERR_var_config_not_allowed, 3196), (sym_ERR_var_external_not_allowed, 3196),
     (sym_ERR_var_global_not_allowed, 3196), (sym_ERR_method_decl_in_body, 3150),
     (sym_extern_pragma, 7490), (sym_wasm_pragma, 3150), (sym_warn_pragma, 7490),
     (sym_allow_pragma, 3140), (sym_test_pragma, 7490), (sym_once_pragma, 7490),
     (sym_must_call_pragma, 7490), (sym_export_pragma, 7490), (sym_pou_pragma, 7194),
     (sym_direct_variable, 7675), (sym_deref_expression, 2373), (sym_variable, 7599),
     (sym_var_access, 2373), (sym_input_decls, 3196), (sym_output_decls, 3196),
     (sym_in_out_decls, 3196), (sym_var_decls, 3196), (sym_temp_var_decls, 3196),
     (sym_external_var_decls, 3197), (sym_global_var_decls, 2947), (sym_func_body, 9618),
     (sym_method_decl, 3159), (sym__method_decl_variables, 1096), (sym_prog_access_decls, 3043),
     (sym_config_init, 3047), (sym_variable_access, 7530), (sym_func_call, 2961),
     (sym_stmt_list, 8165), (sym__stmt, 2024), (sym_assign, 3150), (sym_if_stmt, 3150),
     (sym_case_stmt, 3150), (sym_for_stmt, 3150), (sym_while_stmt, 3150), (sym_repeat_stmt, 3150),
     (sym_raise_stmt, 3150), (sym_try_stmt, 3150), (sym_ERR_clause_outside_try, 3150),
     (sym_begin_path_expression, 2943), (sym_invocation, 2934), (sym_any_invocation, 2935),
     (sym_this_invocation, 2641), (sym_super_invocation, 2641), (sym_super_body_invocation, 2935),
     (sym_path_expression, 2627), (sym_field_expression, 2373), (sym_index_expression, 2373),
     (sym_ladder_diagram, 8165), (sym_fb_diagram, 8165), (aux_sym_func_decl_repeat1, 7194),
     (aux_sym_method_decl_repeat1, 1096), (aux_sym_stmt_list_repeat1, 2024),
     (aux_sym_ladder_diagram_repeat1, 7628), (aux_sym_fb_diagram_repeat1, 7633),
     (sym_identifier, 298), (anon_sym_COLON, 2182),
     (aux_sym_ERR_unexpected_this_in_path_token1, 304),
     (aux_sym_ERR_unexpected_super_in_path_token1, 306), (sym_line_comment, 3),
     (anon_sym_LBRACE, 308), (aux_sym_test_pragma_token1, 9), (aux_sym_once_pragma_token1, 11),
     (aux_sym_must_call_pragma_token1, 13), (aux_sym_export_pragma_token1, 15),
     (anon_sym_SEMI, 310), (anon_sym_PERCENT, 312), (aux_sym_input_decls_token1, 2094),
     (aux_sym_output_decls_token1, 2096), (aux_sym_in_out_decls_token1, 318),
     (aux_sym_var_decls_token1, 2098), (aux_sym_temp_var_decls_token1, 322),
     (aux_sym_external_var_decls_token1, 324), (aux_sym_global_var_decls_token1, 326),
     (aux_sym_method_decl_token1, 330), (aux_sym_method_decl_token3, 2184),
     (aux_sym_prog_access_decls_token1, 332), (aux_sym_config_init_token1, 336),
     (aux_sym__stmt_token1, 340), (aux_sym__stmt_token2, 340), (aux_sym__stmt_token3, 340),
     (aux_sym_if_stmt_token1, 342), (aux_sym_case_stmt_token1, 344), (aux_sym_for_stmt_token1, 346),
     (aux_sym_while_stmt_token1, 348), (aux_sym_repeat_stmt_token1, 350),
     (aux_sym_raise_stmt_token1, 352), (aux_sym_try_stmt_token1, 354),
     (aux_sym_try_stmt_token2, 356), (aux_sym_catch_clause_token1, 356),
     (aux_sym_finally_clause_token1, 356), (sym_ld_rung, 2102), (sym_fbd_network, 2104),
     (sym_c_style_comment, 3), (sym_pascal_style_comment, 3), (sym_pragma, 3)]"

lemma ts_parse_row_905_scan: "row_scan tokens_63_2 0 ts_parse_row_905 = Some (Suc (Suc (Suc (Suc 0))))"
  unfolding ts_parse_row_905_def by simp

text \<open>Lines 157427 to 157531.\<close>

definition ts_parse_row_906 :: parse_row where
  "ts_parse_row_906 =
    [(sym_ERR_assign_func_call, 7530), (sym_ERR_unexpected_this_in_path, 2372),
     (sym_ERR_unexpected_super_in_path, 2372), (sym_ERR_var_access_not_allowed, 3196),
     (sym_ERR_var_config_not_allowed, 3196), (sym_ERR_var_external_not_allowed, 3196),
     (sym_ERR_var_global_not_allowed, 3196), (sym_ERR_method_decl_in_body, 3150),
     (sym_extern_pragma, 7490), (sym_wasm_pragma, 3150), (sym_warn_pragma, 7490),
     (sym_allow_pragma, 3140), (sym_test_pragma, 7490), (sym_once_pragma, 7490),
     (sym_must_call_pragma, 7490), (sym_export_pragma, 7490), (sym_pou_pragma, 7194),
     (sym_direct_variable, 7675), (sym_deref_expression, 2373), (sym_variable, 7599),
     (sym_var_access, 2373), (sym_input_decls, 3196), (sym_output_decls, 3196),
     (sym_in_out_decls, 3196), (sym_var_decls, 3196), (sym_temp_var_decls, 3196),
     (sym_external_var_decls, 3197), (sym_global_var_decls, 2947), (sym_func_body, 8831),
     (sym_method_decl, 3159), (sym__method_decl_variables, 953), (sym_prog_access_decls, 3043),
     (sym_config_init, 3047), (sym_variable_access, 7530), (sym_func_call, 2961),
     (sym_stmt_list, 8165), (sym__stmt, 2024), (sym_assign, 3150), (sym_if_stmt, 3150),
     (sym_case_stmt, 3150), (sym_for_stmt, 3150), (sym_while_stmt, 3150), (sym_repeat_stmt, 3150),
     (sym_raise_stmt, 3150), (sym_try_stmt, 3150), (sym_ERR_clause_outside_try, 3150),
     (sym_begin_path_expression, 2943), (sym_invocation, 2934), (sym_any_invocation, 2935),
     (sym_this_invocation, 2641), (sym_super_invocation, 2641), (sym_super_body_invocation, 2935),
     (sym_path_expression, 2627), (sym_field_expression, 2373), (sym_index_expression, 2373),
     (sym_ladder_diagram, 8165), (sym_fb_diagram, 8165), (aux_sym_func_decl_repeat1, 7194),
     (aux_sym_method_decl_repeat1, 953), (aux_sym_stmt_list_repeat1, 2024),
     (aux_sym_ladder_diagram_repeat1, 7628), (aux_sym_fb_diagram_repeat1, 7633),
     (sym_identifier, 298), (anon_sym_COLON, 2186),
     (aux_sym_ERR_unexpected_this_in_path_token1, 304),
     (aux_sym_ERR_unexpected_super_in_path_token1, 306), (sym_line_comment, 3),
     (anon_sym_LBRACE, 308), (aux_sym_test_pragma_token1, 9), (aux_sym_once_pragma_token1, 11),
     (aux_sym_must_call_pragma_token1, 13), (aux_sym_export_pragma_token1, 15),
     (anon_sym_SEMI, 310), (anon_sym_PERCENT, 312), (aux_sym_input_decls_token1, 2094),
     (aux_sym_output_decls_token1, 2096), (aux_sym_in_out_decls_token1, 318),
     (aux_sym_var_decls_token1, 2098), (aux_sym_temp_var_decls_token1, 322),
     (aux_sym_external_var_decls_token1, 324), (aux_sym_global_var_decls_token1, 326),
     (aux_sym_method_decl_token1, 330), (aux_sym_method_decl_token3, 2188),
     (aux_sym_prog_access_decls_token1, 332), (aux_sym_config_init_token1, 336),
     (aux_sym__stmt_token1, 340), (aux_sym__stmt_token2, 340), (aux_sym__stmt_token3, 340),
     (aux_sym_if_stmt_token1, 342), (aux_sym_case_stmt_token1, 344), (aux_sym_for_stmt_token1, 346),
     (aux_sym_while_stmt_token1, 348), (aux_sym_repeat_stmt_token1, 350),
     (aux_sym_raise_stmt_token1, 352), (aux_sym_try_stmt_token1, 354),
     (aux_sym_try_stmt_token2, 356), (aux_sym_catch_clause_token1, 356),
     (aux_sym_finally_clause_token1, 356), (sym_ld_rung, 2102), (sym_fbd_network, 2104),
     (sym_c_style_comment, 3), (sym_pascal_style_comment, 3), (sym_pragma, 3)]"

lemma ts_parse_row_906_scan: "row_scan tokens_63_2 0 ts_parse_row_906 = Some (Suc (Suc (Suc (Suc 0))))"
  unfolding ts_parse_row_906_def by simp

text \<open>Lines 157532 to 157636.\<close>

definition ts_parse_row_907 :: parse_row where
  "ts_parse_row_907 =
    [(sym_ERR_assign_func_call, 7530), (sym_ERR_unexpected_this_in_path, 2372),
     (sym_ERR_unexpected_super_in_path, 2372), (sym_ERR_var_access_not_allowed, 3196),
     (sym_ERR_var_config_not_allowed, 3196), (sym_ERR_var_external_not_allowed, 3196),
     (sym_ERR_var_global_not_allowed, 3196), (sym_ERR_method_decl_in_body, 3150),
     (sym_extern_pragma, 7490), (sym_wasm_pragma, 3150), (sym_warn_pragma, 7490),
     (sym_allow_pragma, 3140), (sym_test_pragma, 7490), (sym_once_pragma, 7490),
     (sym_must_call_pragma, 7490), (sym_export_pragma, 7490), (sym_pou_pragma, 7194),
     (sym_direct_variable, 7675), (sym_deref_expression, 2373), (sym_variable, 7599),
     (sym_var_access, 2373), (sym_input_decls, 3196), (sym_output_decls, 3196),
     (sym_in_out_decls, 3196), (sym_var_decls, 3196), (sym_temp_var_decls, 3196),
     (sym_external_var_decls, 3197), (sym_global_var_decls, 2947), (sym_func_body, 9047),
     (sym_method_decl, 3159), (sym__method_decl_variables, 1104), (sym_prog_access_decls, 3043),
     (sym_config_init, 3047), (sym_variable_access, 7530), (sym_func_call, 2961),
     (sym_stmt_list, 8165), (sym__stmt, 2024), (sym_assign, 3150), (sym_if_stmt, 3150),
     (sym_case_stmt, 3150), (sym_for_stmt, 3150), (sym_while_stmt, 3150), (sym_repeat_stmt, 3150),
     (sym_raise_stmt, 3150), (sym_try_stmt, 3150), (sym_ERR_clause_outside_try, 3150),
     (sym_begin_path_expression, 2943), (sym_invocation, 2934), (sym_any_invocation, 2935),
     (sym_this_invocation, 2641), (sym_super_invocation, 2641), (sym_super_body_invocation, 2935),
     (sym_path_expression, 2627), (sym_field_expression, 2373), (sym_index_expression, 2373),
     (sym_ladder_diagram, 8165), (sym_fb_diagram, 8165), (aux_sym_func_decl_repeat1, 7194),
     (aux_sym_method_decl_repeat1, 1104), (aux_sym_stmt_list_repeat1, 2024),
     (aux_sym_ladder_diagram_repeat1, 7628), (aux_sym_fb_diagram_repeat1, 7633),
     (sym_identifier, 298), (anon_sym_COLON, 2190),
     (aux_sym_ERR_unexpected_this_in_path_token1, 304),
     (aux_sym_ERR_unexpected_super_in_path_token1, 306), (sym_line_comment, 3),
     (anon_sym_LBRACE, 308), (aux_sym_test_pragma_token1, 9), (aux_sym_once_pragma_token1, 11),
     (aux_sym_must_call_pragma_token1, 13), (aux_sym_export_pragma_token1, 15),
     (anon_sym_SEMI, 310), (anon_sym_PERCENT, 312), (aux_sym_input_decls_token1, 2094),
     (aux_sym_output_decls_token1, 2096), (aux_sym_in_out_decls_token1, 318),
     (aux_sym_var_decls_token1, 2098), (aux_sym_temp_var_decls_token1, 322),
     (aux_sym_external_var_decls_token1, 324), (aux_sym_global_var_decls_token1, 326),
     (aux_sym_method_decl_token1, 330), (aux_sym_method_decl_token3, 2192),
     (aux_sym_prog_access_decls_token1, 332), (aux_sym_config_init_token1, 336),
     (aux_sym__stmt_token1, 340), (aux_sym__stmt_token2, 340), (aux_sym__stmt_token3, 340),
     (aux_sym_if_stmt_token1, 342), (aux_sym_case_stmt_token1, 344), (aux_sym_for_stmt_token1, 346),
     (aux_sym_while_stmt_token1, 348), (aux_sym_repeat_stmt_token1, 350),
     (aux_sym_raise_stmt_token1, 352), (aux_sym_try_stmt_token1, 354),
     (aux_sym_try_stmt_token2, 356), (aux_sym_catch_clause_token1, 356),
     (aux_sym_finally_clause_token1, 356), (sym_ld_rung, 2102), (sym_fbd_network, 2104),
     (sym_c_style_comment, 3), (sym_pascal_style_comment, 3), (sym_pragma, 3)]"

lemma ts_parse_row_907_scan: "row_scan tokens_63_2 0 ts_parse_row_907 = Some (Suc (Suc (Suc (Suc 0))))"
  unfolding ts_parse_row_907_def by simp

text \<open>Lines 157637 to 157741.\<close>

definition ts_parse_row_908 :: parse_row where
  "ts_parse_row_908 =
    [(sym_ERR_assign_func_call, 7530), (sym_ERR_unexpected_this_in_path, 2372),
     (sym_ERR_unexpected_super_in_path, 2372), (sym_ERR_var_access_not_allowed, 3196),
     (sym_ERR_var_config_not_allowed, 3196), (sym_ERR_var_external_not_allowed, 3196),
     (sym_ERR_var_global_not_allowed, 3196), (sym_ERR_method_decl_in_body, 3150),
     (sym_extern_pragma, 7490), (sym_wasm_pragma, 3150), (sym_warn_pragma, 7490),
     (sym_allow_pragma, 3140), (sym_test_pragma, 7490), (sym_once_pragma, 7490),
     (sym_must_call_pragma, 7490), (sym_export_pragma, 7490), (sym_pou_pragma, 7194),
     (sym_direct_variable, 7675), (sym_deref_expression, 2373), (sym_variable, 7599),
     (sym_var_access, 2373), (sym_input_decls, 3196), (sym_output_decls, 3196),
     (sym_in_out_decls, 3196), (sym_var_decls, 3196), (sym_temp_var_decls, 3196),
     (sym_external_var_decls, 3197), (sym_global_var_decls, 2947), (sym_func_body, 9072),
     (sym_method_decl, 3159), (sym__method_decl_variables, 1105), (sym_prog_access_decls, 3043),
     (sym_config_init, 3047), (sym_variable_access, 7530), (sym_func_call, 2961),
     (sym_stmt_list, 8165), (sym__stmt, 2024), (sym_assign, 3150), (sym_if_stmt, 3150),
     (sym_case_stmt, 3150), (sym_for_stmt, 3150), (sym_while_stmt, 3150), (sym_repeat_stmt, 3150),
     (sym_raise_stmt, 3150), (sym_try_stmt, 3150), (sym_ERR_clause_outside_try, 3150),
     (sym_begin_path_expression, 2943), (sym_invocation, 2934), (sym_any_invocation, 2935),
     (sym_this_invocation, 2641), (sym_super_invocation, 2641), (sym_super_body_invocation, 2935),
     (sym_path_expression, 2627), (sym_field_expression, 2373), (sym_index_expression, 2373),
     (sym_ladder_diagram, 8165), (sym_fb_diagram, 8165), (aux_sym_func_decl_repeat1, 7194),
     (aux_sym_method_decl_repeat1, 1105), (aux_sym_stmt_list_repeat1, 2024),
     (aux_sym_ladder_diagram_repeat1, 7628), (aux_sym_fb_diagram_repeat1, 7633),
     (sym_identifier, 298), (anon_sym_COLON, 2194),
     (aux_sym_ERR_unexpected_this_in_path_token1, 304),
     (aux_sym_ERR_unexpected_super_in_path_token1, 306), (sym_line_comment, 3),
     (anon_sym_LBRACE, 308), (aux_sym_test_pragma_token1, 9), (aux_sym_once_pragma_token1, 11),
     (aux_sym_must_call_pragma_token1, 13), (aux_sym_export_pragma_token1, 15),
     (anon_sym_SEMI, 310), (anon_sym_PERCENT, 312), (aux_sym_input_decls_token1, 2094),
     (aux_sym_output_decls_token1, 2096), (aux_sym_in_out_decls_token1, 318),
     (aux_sym_var_decls_token1, 2098), (aux_sym_temp_var_decls_token1, 322),
     (aux_sym_external_var_decls_token1, 324), (aux_sym_global_var_decls_token1, 326),
     (aux_sym_method_decl_token1, 330), (aux_sym_method_decl_token3, 2196),
     (aux_sym_prog_access_decls_token1, 332), (aux_sym_config_init_token1, 336),
     (aux_sym__stmt_token1, 340), (aux_sym__stmt_token2, 340), (aux_sym__stmt_token3, 340),
     (aux_sym_if_stmt_token1, 342), (aux_sym_case_stmt_token1, 344), (aux_sym_for_stmt_token1, 346),
     (aux_sym_while_stmt_token1, 348), (aux_sym_repeat_stmt_token1, 350),
     (aux_sym_raise_stmt_token1, 352), (aux_sym_try_stmt_token1, 354),
     (aux_sym_try_stmt_token2, 356), (aux_sym_catch_clause_token1, 356),
     (aux_sym_finally_clause_token1, 356), (sym_ld_rung, 2102), (sym_fbd_network, 2104),
     (sym_c_style_comment, 3), (sym_pascal_style_comment, 3), (sym_pragma, 3)]"

lemma ts_parse_row_908_scan: "row_scan tokens_63_2 0 ts_parse_row_908 = Some (Suc (Suc (Suc (Suc 0))))"
  unfolding ts_parse_row_908_def by simp

text \<open>Lines 157742 to 157846.\<close>

definition ts_parse_row_909 :: parse_row where
  "ts_parse_row_909 =
    [(sym_ERR_assign_func_call, 7530), (sym_ERR_unexpected_this_in_path, 2372),
     (sym_ERR_unexpected_super_in_path, 2372), (sym_ERR_var_access_not_allowed, 3196),
     (sym_ERR_var_config_not_allowed, 3196), (sym_ERR_var_external_not_allowed, 3196),
     (sym_ERR_var_global_not_allowed, 3196), (sym_ERR_method_decl_in_body, 3150),
     (sym_extern_pragma, 7490), (sym_wasm_pragma, 3150), (sym_warn_pragma, 7490),
     (sym_allow_pragma, 3140), (sym_test_pragma, 7490), (sym_once_pragma, 7490),
     (sym_must_call_pragma, 7490), (sym_export_pragma, 7490), (sym_pou_pragma, 7194),
     (sym_direct_variable, 7675), (sym_deref_expression, 2373), (sym_variable, 7599),
     (sym_var_access, 2373), (sym_input_decls, 3196), (sym_output_decls, 3196),
     (sym_in_out_decls, 3196), (sym_var_decls, 3196), (sym_temp_var_decls, 3196),
     (sym_external_var_decls, 3197), (sym_global_var_decls, 2947), (sym_func_body, 8207),
     (sym_method_decl, 3159), (sym__method_decl_variables, 980), (sym_prog_access_decls, 3043),
     (sym_config_init, 3047), (sym_variable_access, 7530), (sym_func_call, 2961),
     (sym_stmt_list, 8165), (sym__stmt, 2024), (sym_assign, 3150), (sym_if_stmt, 3150),
     (sym_case_stmt, 3150), (sym_for_stmt, 3150), (sym_while_stmt, 3150), (sym_repeat_stmt, 3150),
     (sym_raise_stmt, 3150), (sym_try_stmt, 3150), (sym_ERR_clause_outside_try, 3150),
     (sym_begin_path_expression, 2943), (sym_invocation, 2934), (sym_any_invocation, 2935),
     (sym_this_invocation, 2641), (sym_super_invocation, 2641), (sym_super_body_invocation, 2935),
     (sym_path_expression, 2627), (sym_field_expression, 2373), (sym_index_expression, 2373),
     (sym_ladder_diagram, 8165), (sym_fb_diagram, 8165), (aux_sym_func_decl_repeat1, 7194),
     (aux_sym_method_decl_repeat1, 980), (aux_sym_stmt_list_repeat1, 2024),
     (aux_sym_ladder_diagram_repeat1, 7628), (aux_sym_fb_diagram_repeat1, 7633),
     (sym_identifier, 298), (anon_sym_COLON, 2198),
     (aux_sym_ERR_unexpected_this_in_path_token1, 304),
     (aux_sym_ERR_unexpected_super_in_path_token1, 306), (sym_line_comment, 3),
     (anon_sym_LBRACE, 308), (aux_sym_test_pragma_token1, 9), (aux_sym_once_pragma_token1, 11),
     (aux_sym_must_call_pragma_token1, 13), (aux_sym_export_pragma_token1, 15),
     (anon_sym_SEMI, 310), (anon_sym_PERCENT, 312), (aux_sym_input_decls_token1, 2094),
     (aux_sym_output_decls_token1, 2096), (aux_sym_in_out_decls_token1, 318),
     (aux_sym_var_decls_token1, 2098), (aux_sym_temp_var_decls_token1, 322),
     (aux_sym_external_var_decls_token1, 324), (aux_sym_global_var_decls_token1, 326),
     (aux_sym_method_decl_token1, 330), (aux_sym_method_decl_token3, 2200),
     (aux_sym_prog_access_decls_token1, 332), (aux_sym_config_init_token1, 336),
     (aux_sym__stmt_token1, 340), (aux_sym__stmt_token2, 340), (aux_sym__stmt_token3, 340),
     (aux_sym_if_stmt_token1, 342), (aux_sym_case_stmt_token1, 344), (aux_sym_for_stmt_token1, 346),
     (aux_sym_while_stmt_token1, 348), (aux_sym_repeat_stmt_token1, 350),
     (aux_sym_raise_stmt_token1, 352), (aux_sym_try_stmt_token1, 354),
     (aux_sym_try_stmt_token2, 356), (aux_sym_catch_clause_token1, 356),
     (aux_sym_finally_clause_token1, 356), (sym_ld_rung, 2102), (sym_fbd_network, 2104),
     (sym_c_style_comment, 3), (sym_pascal_style_comment, 3), (sym_pragma, 3)]"

lemma ts_parse_row_909_scan: "row_scan tokens_63_2 0 ts_parse_row_909 = Some (Suc (Suc (Suc (Suc 0))))"
  unfolding ts_parse_row_909_def by simp

text \<open>Lines 157847 to 157951.\<close>

definition ts_parse_row_910 :: parse_row where
  "ts_parse_row_910 =
    [(sym_ERR_assign_func_call, 7530), (sym_ERR_unexpected_this_in_path, 2372),
     (sym_ERR_unexpected_super_in_path, 2372), (sym_ERR_var_access_not_allowed, 3196),
     (sym_ERR_var_config_not_allowed, 3196), (sym_ERR_var_external_not_allowed, 3196),
     (sym_ERR_var_global_not_allowed, 3196), (sym_ERR_method_decl_in_body, 3150),
     (sym_extern_pragma, 7490), (sym_wasm_pragma, 3150), (sym_warn_pragma, 7490),
     (sym_allow_pragma, 3140), (sym_test_pragma, 7490), (sym_once_pragma, 7490),
     (sym_must_call_pragma, 7490), (sym_export_pragma, 7490), (sym_pou_pragma, 7194),
     (sym_direct_variable, 7675), (sym_deref_expression, 2373), (sym_variable, 7599),
     (sym_var_access, 2373), (sym_input_decls, 3196), (sym_output_decls, 3196),
     (sym_in_out_decls, 3196), (sym_var_decls, 3196), (sym_temp_var_decls, 3196),
     (sym_external_var_decls, 3197), (sym_global_var_decls, 2947), (sym_func_body, 8894),
     (sym_method_decl, 3159), (sym__method_decl_variables, 958), (sym_prog_access_decls, 3043),
     (sym_config_init, 3047), (sym_variable_access, 7530), (sym_func_call, 2961),
     (sym_stmt_list, 8165), (sym__stmt, 2024), (sym_assign, 3150), (sym_if_stmt, 3150),
     (sym_case_stmt, 3150), (sym_for_stmt, 3150), (sym_while_stmt, 3150), (sym_repeat_stmt, 3150),
     (sym_raise_stmt, 3150), (sym_try_stmt, 3150), (sym_ERR_clause_outside_try, 3150),
     (sym_begin_path_expression, 2943), (sym_invocation, 2934), (sym_any_invocation, 2935),
     (sym_this_invocation, 2641), (sym_super_invocation, 2641), (sym_super_body_invocation, 2935),
     (sym_path_expression, 2627), (sym_field_expression, 2373), (sym_index_expression, 2373),
     (sym_ladder_diagram, 8165), (sym_fb_diagram, 8165), (aux_sym_func_decl_repeat1, 7194),
     (aux_sym_method_decl_repeat1, 958), (aux_sym_stmt_list_repeat1, 2024),
     (aux_sym_ladder_diagram_repeat1, 7628), (aux_sym_fb_diagram_repeat1, 7633),
     (sym_identifier, 298), (anon_sym_COLON, 2202),
     (aux_sym_ERR_unexpected_this_in_path_token1, 304),
     (aux_sym_ERR_unexpected_super_in_path_token1, 306), (sym_line_comment, 3),
     (anon_sym_LBRACE, 308), (aux_sym_test_pragma_token1, 9), (aux_sym_once_pragma_token1, 11),
     (aux_sym_must_call_pragma_token1, 13), (aux_sym_export_pragma_token1, 15),
     (anon_sym_SEMI, 310), (anon_sym_PERCENT, 312), (aux_sym_input_decls_token1, 2094),
     (aux_sym_output_decls_token1, 2096), (aux_sym_in_out_decls_token1, 318),
     (aux_sym_var_decls_token1, 2098), (aux_sym_temp_var_decls_token1, 322),
     (aux_sym_external_var_decls_token1, 324), (aux_sym_global_var_decls_token1, 326),
     (aux_sym_method_decl_token1, 330), (aux_sym_method_decl_token3, 2204),
     (aux_sym_prog_access_decls_token1, 332), (aux_sym_config_init_token1, 336),
     (aux_sym__stmt_token1, 340), (aux_sym__stmt_token2, 340), (aux_sym__stmt_token3, 340),
     (aux_sym_if_stmt_token1, 342), (aux_sym_case_stmt_token1, 344), (aux_sym_for_stmt_token1, 346),
     (aux_sym_while_stmt_token1, 348), (aux_sym_repeat_stmt_token1, 350),
     (aux_sym_raise_stmt_token1, 352), (aux_sym_try_stmt_token1, 354),
     (aux_sym_try_stmt_token2, 356), (aux_sym_catch_clause_token1, 356),
     (aux_sym_finally_clause_token1, 356), (sym_ld_rung, 2102), (sym_fbd_network, 2104),
     (sym_c_style_comment, 3), (sym_pascal_style_comment, 3), (sym_pragma, 3)]"

lemma ts_parse_row_910_scan: "row_scan tokens_63_2 0 ts_parse_row_910 = Some (Suc (Suc (Suc (Suc 0))))"
  unfolding ts_parse_row_910_def by simp

text \<open>Lines 157952 to 158056.\<close>

definition ts_parse_row_911 :: parse_row where
  "ts_parse_row_911 =
    [(sym_ERR_assign_func_call, 7530), (sym_ERR_unexpected_this_in_path, 2372),
     (sym_ERR_unexpected_super_in_path, 2372), (sym_ERR_var_access_not_allowed, 3196),
     (sym_ERR_var_config_not_allowed, 3196), (sym_ERR_var_external_not_allowed, 3196),
     (sym_ERR_var_global_not_allowed, 3196), (sym_ERR_method_decl_in_body, 3150),
     (sym_extern_pragma, 7490), (sym_wasm_pragma, 3150), (sym_warn_pragma, 7490),
     (sym_allow_pragma, 3140), (sym_test_pragma, 7490), (sym_once_pragma, 7490),
     (sym_must_call_pragma, 7490), (sym_export_pragma, 7490), (sym_pou_pragma, 7194),
     (sym_direct_variable, 7675), (sym_deref_expression, 2373), (sym_variable, 7599),
     (sym_var_access, 2373), (sym_input_decls, 3196), (sym_output_decls, 3196),
     (sym_in_out_decls, 3196), (sym_var_decls, 3196), (sym_temp_var_decls, 3196),
     (sym_external_var_decls, 3197), (sym_global_var_decls, 2947), (sym_func_body, 8465),
     (sym_method_decl, 3159), (sym__method_decl_variables, 971), (sym_prog_access_decls, 3043),
     (sym_config_init, 3047), (sym_variable_access, 7530), (sym_func_call, 2961),
     (sym_stmt_list, 8165), (sym__stmt, 2024), (sym_assign, 3150), (sym_if_stmt, 3150),
     (sym_case_stmt, 3150), (sym_for_stmt, 3150), (sym_while_stmt, 3150), (sym_repeat_stmt, 3150),
     (sym_raise_stmt, 3150), (sym_try_stmt, 3150), (sym_ERR_clause_outside_try, 3150),
     (sym_begin_path_expression, 2943), (sym_invocation, 2934), (sym_any_invocation, 2935),
     (sym_this_invocation, 2641), (sym_super_invocation, 2641), (sym_super_body_invocation, 2935),
     (sym_path_expression, 2627), (sym_field_expression, 2373), (sym_index_expression, 2373),
     (sym_ladder_diagram, 8165), (sym_fb_diagram, 8165), (aux_sym_func_decl_repeat1, 7194),
     (aux_sym_method_decl_repeat1, 971), (aux_sym_stmt_list_repeat1, 2024),
     (aux_sym_ladder_diagram_repeat1, 7628), (aux_sym_fb_diagram_repeat1, 7633),
     (sym_identifier, 298), (anon_sym_COLON, 2206),
     (aux_sym_ERR_unexpected_this_in_path_token1, 304),
     (aux_sym_ERR_unexpected_super_in_path_token1, 306), (sym_line_comment, 3),
     (anon_sym_LBRACE, 308), (aux_sym_test_pragma_token1, 9), (aux_sym_once_pragma_token1, 11),
     (aux_sym_must_call_pragma_token1, 13), (aux_sym_export_pragma_token1, 15),
     (anon_sym_SEMI, 310), (anon_sym_PERCENT, 312), (aux_sym_input_decls_token1, 2094),
     (aux_sym_output_decls_token1, 2096), (aux_sym_in_out_decls_token1, 318),
     (aux_sym_var_decls_token1, 2098), (aux_sym_temp_var_decls_token1, 322),
     (aux_sym_external_var_decls_token1, 324), (aux_sym_global_var_decls_token1, 326),
     (aux_sym_method_decl_token1, 330), (aux_sym_method_decl_token3, 2208),
     (aux_sym_prog_access_decls_token1, 332), (aux_sym_config_init_token1, 336),
     (aux_sym__stmt_token1, 340), (aux_sym__stmt_token2, 340), (aux_sym__stmt_token3, 340),
     (aux_sym_if_stmt_token1, 342), (aux_sym_case_stmt_token1, 344), (aux_sym_for_stmt_token1, 346),
     (aux_sym_while_stmt_token1, 348), (aux_sym_repeat_stmt_token1, 350),
     (aux_sym_raise_stmt_token1, 352), (aux_sym_try_stmt_token1, 354),
     (aux_sym_try_stmt_token2, 356), (aux_sym_catch_clause_token1, 356),
     (aux_sym_finally_clause_token1, 356), (sym_ld_rung, 2102), (sym_fbd_network, 2104),
     (sym_c_style_comment, 3), (sym_pascal_style_comment, 3), (sym_pragma, 3)]"

lemma ts_parse_row_911_scan: "row_scan tokens_63_2 0 ts_parse_row_911 = Some (Suc (Suc (Suc (Suc 0))))"
  unfolding ts_parse_row_911_def by simp

text \<open>Lines 158057 to 158161.\<close>

definition ts_parse_row_912 :: parse_row where
  "ts_parse_row_912 =
    [(sym_ERR_assign_func_call, 7530), (sym_ERR_unexpected_this_in_path, 2372),
     (sym_ERR_unexpected_super_in_path, 2372), (sym_ERR_var_access_not_allowed, 3196),
     (sym_ERR_var_config_not_allowed, 3196), (sym_ERR_var_external_not_allowed, 3196),
     (sym_ERR_var_global_not_allowed, 3196), (sym_ERR_method_decl_in_body, 3150),
     (sym_extern_pragma, 7490), (sym_wasm_pragma, 3150), (sym_warn_pragma, 7490),
     (sym_allow_pragma, 3140), (sym_test_pragma, 7490), (sym_once_pragma, 7490),
     (sym_must_call_pragma, 7490), (sym_export_pragma, 7490), (sym_pou_pragma, 7194),
     (sym_direct_variable, 7675), (sym_deref_expression, 2373), (sym_variable, 7599),
     (sym_var_access, 2373), (sym_input_decls, 3196), (sym_output_decls, 3196),
     (sym_in_out_decls, 3196), (sym_var_decls, 3196), (sym_temp_var_decls, 3196),
     (sym_external_var_decls, 3197), (sym_global_var_decls, 2947), (sym_func_body, 8902),
     (sym_method_decl, 3159), (sym__method_decl_variables, 959), (sym_prog_access_decls, 3043),
     (sym_config_init, 3047), (sym_variable_access, 7530), (sym_func_call, 2961),
     (sym_stmt_list, 8165), (sym__stmt, 2024), (sym_assign, 3150), (sym_if_stmt, 3150),
     (sym_case_stmt, 3150), (sym_for_stmt, 3150), (sym_while_stmt, 3150), (sym_repeat_stmt, 3150),
     (sym_raise_stmt, 3150), (sym_try_stmt, 3150), (sym_ERR_clause_outside_try, 3150),
     (sym_begin_path_expression, 2943), (sym_invocation, 2934), (sym_any_invocation, 2935),
     (sym_this_invocation, 2641), (sym_super_invocation, 2641), (sym_super_body_invocation, 2935),
     (sym_path_expression, 2627), (sym_field_expression, 2373), (sym_index_expression, 2373),
     (sym_ladder_diagram, 8165), (sym_fb_diagram, 8165), (aux_sym_func_decl_repeat1, 7194),
     (aux_sym_method_decl_repeat1, 959), (aux_sym_stmt_list_repeat1, 2024),
     (aux_sym_ladder_diagram_repeat1, 7628), (aux_sym_fb_diagram_repeat1, 7633),
     (sym_identifier, 298), (anon_sym_COLON, 2210),
     (aux_sym_ERR_unexpected_this_in_path_token1, 304),
     (aux_sym_ERR_unexpected_super_in_path_token1, 306), (sym_line_comment, 3),
     (anon_sym_LBRACE, 308), (aux_sym_test_pragma_token1, 9), (aux_sym_once_pragma_token1, 11),
     (aux_sym_must_call_pragma_token1, 13), (aux_sym_export_pragma_token1, 15),
     (anon_sym_SEMI, 310), (anon_sym_PERCENT, 312), (aux_sym_input_decls_token1, 2094),
     (aux_sym_output_decls_token1, 2096), (aux_sym_in_out_decls_token1, 318),
     (aux_sym_var_decls_token1, 2098), (aux_sym_temp_var_decls_token1, 322),
     (aux_sym_external_var_decls_token1, 324), (aux_sym_global_var_decls_token1, 326),
     (aux_sym_method_decl_token1, 330), (aux_sym_method_decl_token3, 2212),
     (aux_sym_prog_access_decls_token1, 332), (aux_sym_config_init_token1, 336),
     (aux_sym__stmt_token1, 340), (aux_sym__stmt_token2, 340), (aux_sym__stmt_token3, 340),
     (aux_sym_if_stmt_token1, 342), (aux_sym_case_stmt_token1, 344), (aux_sym_for_stmt_token1, 346),
     (aux_sym_while_stmt_token1, 348), (aux_sym_repeat_stmt_token1, 350),
     (aux_sym_raise_stmt_token1, 352), (aux_sym_try_stmt_token1, 354),
     (aux_sym_try_stmt_token2, 356), (aux_sym_catch_clause_token1, 356),
     (aux_sym_finally_clause_token1, 356), (sym_ld_rung, 2102), (sym_fbd_network, 2104),
     (sym_c_style_comment, 3), (sym_pascal_style_comment, 3), (sym_pragma, 3)]"

lemma ts_parse_row_912_scan: "row_scan tokens_63_2 0 ts_parse_row_912 = Some (Suc (Suc (Suc (Suc 0))))"
  unfolding ts_parse_row_912_def by simp

text \<open>Lines 158162 to 158266.\<close>

definition ts_parse_row_913 :: parse_row where
  "ts_parse_row_913 =
    [(sym_ERR_assign_func_call, 7530), (sym_ERR_unexpected_this_in_path, 2372),
     (sym_ERR_unexpected_super_in_path, 2372), (sym_ERR_var_access_not_allowed, 3196),
     (sym_ERR_var_config_not_allowed, 3196), (sym_ERR_var_external_not_allowed, 3196),
     (sym_ERR_var_global_not_allowed, 3196), (sym_ERR_method_decl_in_body, 3150),
     (sym_extern_pragma, 7490), (sym_wasm_pragma, 3150), (sym_warn_pragma, 7490),
     (sym_allow_pragma, 3140), (sym_test_pragma, 7490), (sym_once_pragma, 7490),
     (sym_must_call_pragma, 7490), (sym_export_pragma, 7490), (sym_pou_pragma, 7194),
     (sym_direct_variable, 7675), (sym_deref_expression, 2373), (sym_variable, 7599),
     (sym_var_access, 2373), (sym_input_decls, 3196), (sym_output_decls, 3196),
     (sym_in_out_decls, 3196), (sym_var_decls, 3196), (sym_temp_var_decls, 3196),
     (sym_external_var_decls, 3197), (sym_global_var_decls, 2947), (sym_func_body, 9210),
     (sym_method_decl, 3159), (sym__method_decl_variables, 1034), (sym_prog_access_decls, 3043),
     (sym_config_init, 3047), (sym_variable_access, 7530), (sym_func_call, 2961),
     (sym_stmt_list, 8165), (sym__stmt, 2024), (sym_assign, 3150), (sym_if_stmt, 3150),
     (sym_case_stmt, 3150), (sym_for_stmt, 3150), (sym_while_stmt, 3150), (sym_repeat_stmt, 3150),
     (sym_raise_stmt, 3150), (sym_try_stmt, 3150), (sym_ERR_clause_outside_try, 3150),
     (sym_begin_path_expression, 2943), (sym_invocation, 2934), (sym_any_invocation, 2935),
     (sym_this_invocation, 2641), (sym_super_invocation, 2641), (sym_super_body_invocation, 2935),
     (sym_path_expression, 2627), (sym_field_expression, 2373), (sym_index_expression, 2373),
     (sym_ladder_diagram, 8165), (sym_fb_diagram, 8165), (aux_sym_func_decl_repeat1, 7194),
     (aux_sym_method_decl_repeat1, 1034), (aux_sym_stmt_list_repeat1, 2024),
     (aux_sym_ladder_diagram_repeat1, 7628), (aux_sym_fb_diagram_repeat1, 7633),
     (sym_identifier, 298), (anon_sym_COLON, 2214),
     (aux_sym_ERR_unexpected_this_in_path_token1, 304),
     (aux_sym_ERR_unexpected_super_in_path_token1, 306), (sym_line_comment, 3),
     (anon_sym_LBRACE, 308), (aux_sym_test_pragma_token1, 9), (aux_sym_once_pragma_token1, 11),
     (aux_sym_must_call_pragma_token1, 13), (aux_sym_export_pragma_token1, 15),
     (anon_sym_SEMI, 310), (anon_sym_PERCENT, 312), (aux_sym_input_decls_token1, 2094),
     (aux_sym_output_decls_token1, 2096), (aux_sym_in_out_decls_token1, 318),
     (aux_sym_var_decls_token1, 2098), (aux_sym_temp_var_decls_token1, 322),
     (aux_sym_external_var_decls_token1, 324), (aux_sym_global_var_decls_token1, 326),
     (aux_sym_method_decl_token1, 330), (aux_sym_method_decl_token3, 2216),
     (aux_sym_prog_access_decls_token1, 332), (aux_sym_config_init_token1, 336),
     (aux_sym__stmt_token1, 340), (aux_sym__stmt_token2, 340), (aux_sym__stmt_token3, 340),
     (aux_sym_if_stmt_token1, 342), (aux_sym_case_stmt_token1, 344), (aux_sym_for_stmt_token1, 346),
     (aux_sym_while_stmt_token1, 348), (aux_sym_repeat_stmt_token1, 350),
     (aux_sym_raise_stmt_token1, 352), (aux_sym_try_stmt_token1, 354),
     (aux_sym_try_stmt_token2, 356), (aux_sym_catch_clause_token1, 356),
     (aux_sym_finally_clause_token1, 356), (sym_ld_rung, 2102), (sym_fbd_network, 2104),
     (sym_c_style_comment, 3), (sym_pascal_style_comment, 3), (sym_pragma, 3)]"

lemma ts_parse_row_913_scan: "row_scan tokens_63_2 0 ts_parse_row_913 = Some (Suc (Suc (Suc (Suc 0))))"
  unfolding ts_parse_row_913_def by simp

text \<open>Lines 158267 to 158371.\<close>

definition ts_parse_row_914 :: parse_row where
  "ts_parse_row_914 =
    [(sym_ERR_assign_func_call, 7530), (sym_ERR_unexpected_this_in_path, 2372),
     (sym_ERR_unexpected_super_in_path, 2372), (sym_ERR_var_access_not_allowed, 3196),
     (sym_ERR_var_config_not_allowed, 3196), (sym_ERR_var_external_not_allowed, 3196),
     (sym_ERR_var_global_not_allowed, 3196), (sym_ERR_method_decl_in_body, 3150),
     (sym_extern_pragma, 7490), (sym_wasm_pragma, 3150), (sym_warn_pragma, 7490),
     (sym_allow_pragma, 3140), (sym_test_pragma, 7490), (sym_once_pragma, 7490),
     (sym_must_call_pragma, 7490), (sym_export_pragma, 7490), (sym_pou_pragma, 7194),
     (sym_direct_variable, 7675), (sym_deref_expression, 2373), (sym_variable, 7599),
     (sym_var_access, 2373), (sym_input_decls, 3196), (sym_output_decls, 3196),
     (sym_in_out_decls, 3196), (sym_var_decls, 3196), (sym_temp_var_decls, 3196),
     (sym_external_var_decls, 3197), (sym_global_var_decls, 2947), (sym_func_body, 9231),
     (sym_method_decl, 3159), (sym__method_decl_variables, 1035), (sym_prog_access_decls, 3043),
     (sym_config_init, 3047), (sym_variable_access, 7530), (sym_func_call, 2961),
     (sym_stmt_list, 8165), (sym__stmt, 2024), (sym_assign, 3150), (sym_if_stmt, 3150),
     (sym_case_stmt, 3150), (sym_for_stmt, 3150), (sym_while_stmt, 3150), (sym_repeat_stmt, 3150),
     (sym_raise_stmt, 3150), (sym_try_stmt, 3150), (sym_ERR_clause_outside_try, 3150),
     (sym_begin_path_expression, 2943), (sym_invocation, 2934), (sym_any_invocation, 2935),
     (sym_this_invocation, 2641), (sym_super_invocation, 2641), (sym_super_body_invocation, 2935),
     (sym_path_expression, 2627), (sym_field_expression, 2373), (sym_index_expression, 2373),
     (sym_ladder_diagram, 8165), (sym_fb_diagram, 8165), (aux_sym_func_decl_repeat1, 7194),
     (aux_sym_method_decl_repeat1, 1035), (aux_sym_stmt_list_repeat1, 2024),
     (aux_sym_ladder_diagram_repeat1, 7628), (aux_sym_fb_diagram_repeat1, 7633),
     (sym_identifier, 298), (anon_sym_COLON, 2218),
     (aux_sym_ERR_unexpected_this_in_path_token1, 304),
     (aux_sym_ERR_unexpected_super_in_path_token1, 306), (sym_line_comment, 3),
     (anon_sym_LBRACE, 308), (aux_sym_test_pragma_token1, 9), (aux_sym_once_pragma_token1, 11),
     (aux_sym_must_call_pragma_token1, 13), (aux_sym_export_pragma_token1, 15),
     (anon_sym_SEMI, 310), (anon_sym_PERCENT, 312), (aux_sym_input_decls_token1, 2094),
     (aux_sym_output_decls_token1, 2096), (aux_sym_in_out_decls_token1, 318),
     (aux_sym_var_decls_token1, 2098), (aux_sym_temp_var_decls_token1, 322),
     (aux_sym_external_var_decls_token1, 324), (aux_sym_global_var_decls_token1, 326),
     (aux_sym_method_decl_token1, 330), (aux_sym_method_decl_token3, 2220),
     (aux_sym_prog_access_decls_token1, 332), (aux_sym_config_init_token1, 336),
     (aux_sym__stmt_token1, 340), (aux_sym__stmt_token2, 340), (aux_sym__stmt_token3, 340),
     (aux_sym_if_stmt_token1, 342), (aux_sym_case_stmt_token1, 344), (aux_sym_for_stmt_token1, 346),
     (aux_sym_while_stmt_token1, 348), (aux_sym_repeat_stmt_token1, 350),
     (aux_sym_raise_stmt_token1, 352), (aux_sym_try_stmt_token1, 354),
     (aux_sym_try_stmt_token2, 356), (aux_sym_catch_clause_token1, 356),
     (aux_sym_finally_clause_token1, 356), (sym_ld_rung, 2102), (sym_fbd_network, 2104),
     (sym_c_style_comment, 3), (sym_pascal_style_comment, 3), (sym_pragma, 3)]"

lemma ts_parse_row_914_scan: "row_scan tokens_63_2 0 ts_parse_row_914 = Some (Suc (Suc (Suc (Suc 0))))"
  unfolding ts_parse_row_914_def by simp

text \<open>Lines 158372 to 158476.\<close>

definition ts_parse_row_915 :: parse_row where
  "ts_parse_row_915 =
    [(sym_ERR_assign_func_call, 7530), (sym_ERR_unexpected_this_in_path, 2372),
     (sym_ERR_unexpected_super_in_path, 2372), (sym_ERR_var_access_not_allowed, 3196),
     (sym_ERR_var_config_not_allowed, 3196), (sym_ERR_var_external_not_allowed, 3196),
     (sym_ERR_var_global_not_allowed, 3196), (sym_ERR_method_decl_in_body, 3150),
     (sym_extern_pragma, 7490), (sym_wasm_pragma, 3150), (sym_warn_pragma, 7490),
     (sym_allow_pragma, 3140), (sym_test_pragma, 7490), (sym_once_pragma, 7490),
     (sym_must_call_pragma, 7490), (sym_export_pragma, 7490), (sym_pou_pragma, 7194),
     (sym_direct_variable, 7675), (sym_deref_expression, 2373), (sym_variable, 7599),
     (sym_var_access, 2373), (sym_input_decls, 3196), (sym_output_decls, 3196),
     (sym_in_out_decls, 3196), (sym_var_decls, 3196), (sym_temp_var_decls, 3196),
     (sym_external_var_decls, 3197), (sym_global_var_decls, 2947), (sym_func_body, 10073),
     (sym_method_decl, 3159), (sym__method_decl_variables, 973), (sym_prog_access_decls, 3043),
     (sym_config_init, 3047), (sym_variable_access, 7530), (sym_func_call, 2961),
     (sym_stmt_list, 8165), (sym__stmt, 2024), (sym_assign, 3150), (sym_if_stmt, 3150),
     (sym_case_stmt, 3150), (sym_for_stmt, 3150), (sym_while_stmt, 3150), (sym_repeat_stmt, 3150),
     (sym_raise_stmt, 3150), (sym_try_stmt, 3150), (sym_ERR_clause_outside_try, 3150),
     (sym_begin_path_expression, 2943), (sym_invocation, 2934), (sym_any_invocation, 2935),
     (sym_this_invocation, 2641), (sym_super_invocation, 2641), (sym_super_body_invocation, 2935),
     (sym_path_expression, 2627), (sym_field_expression, 2373), (sym_index_expression, 2373),
     (sym_ladder_diagram, 8165), (sym_fb_diagram, 8165), (aux_sym_func_decl_repeat1, 7194),
     (aux_sym_method_decl_repeat1, 973), (aux_sym_stmt_list_repeat1, 2024),
     (aux_sym_ladder_diagram_repeat1, 7628), (aux_sym_fb_diagram_repeat1, 7633),
     (sym_identifier, 298), (anon_sym_COLON, 2222),
     (aux_sym_ERR_unexpected_this_in_path_token1, 304),
     (aux_sym_ERR_unexpected_super_in_path_token1, 306), (sym_line_comment, 3),
     (anon_sym_LBRACE, 308), (aux_sym_test_pragma_token1, 9), (aux_sym_once_pragma_token1, 11),
     (aux_sym_must_call_pragma_token1, 13), (aux_sym_export_pragma_token1, 15),
     (anon_sym_SEMI, 310), (anon_sym_PERCENT, 312), (aux_sym_input_decls_token1, 2094),
     (aux_sym_output_decls_token1, 2096), (aux_sym_in_out_decls_token1, 318),
     (aux_sym_var_decls_token1, 2098), (aux_sym_temp_var_decls_token1, 322),
     (aux_sym_external_var_decls_token1, 324), (aux_sym_global_var_decls_token1, 326),
     (aux_sym_method_decl_token1, 330), (aux_sym_method_decl_token3, 2224),
     (aux_sym_prog_access_decls_token1, 332), (aux_sym_config_init_token1, 336),
     (aux_sym__stmt_token1, 340), (aux_sym__stmt_token2, 340), (aux_sym__stmt_token3, 340),
     (aux_sym_if_stmt_token1, 342), (aux_sym_case_stmt_token1, 344), (aux_sym_for_stmt_token1, 346),
     (aux_sym_while_stmt_token1, 348), (aux_sym_repeat_stmt_token1, 350),
     (aux_sym_raise_stmt_token1, 352), (aux_sym_try_stmt_token1, 354),
     (aux_sym_try_stmt_token2, 356), (aux_sym_catch_clause_token1, 356),
     (aux_sym_finally_clause_token1, 356), (sym_ld_rung, 2102), (sym_fbd_network, 2104),
     (sym_c_style_comment, 3), (sym_pascal_style_comment, 3), (sym_pragma, 3)]"

lemma ts_parse_row_915_scan: "row_scan tokens_63_2 0 ts_parse_row_915 = Some (Suc (Suc (Suc (Suc 0))))"
  unfolding ts_parse_row_915_def by simp

text \<open>Lines 158477 to 158581.\<close>

definition ts_parse_row_916 :: parse_row where
  "ts_parse_row_916 =
    [(sym_ERR_assign_func_call, 7530), (sym_ERR_unexpected_this_in_path, 2372),
     (sym_ERR_unexpected_super_in_path, 2372), (sym_ERR_var_access_not_allowed, 3196),
     (sym_ERR_var_config_not_allowed, 3196), (sym_ERR_var_external_not_allowed, 3196),
     (sym_ERR_var_global_not_allowed, 3196), (sym_ERR_method_decl_in_body, 3150),
     (sym_extern_pragma, 7490), (sym_wasm_pragma, 3150), (sym_warn_pragma, 7490),
     (sym_allow_pragma, 3140), (sym_test_pragma, 7490), (sym_once_pragma, 7490),
     (sym_must_call_pragma, 7490), (sym_export_pragma, 7490), (sym_pou_pragma, 7194),
     (sym_direct_variable, 7675), (sym_deref_expression, 2373), (sym_variable, 7599),
     (sym_var_access, 2373), (sym_input_decls, 3196), (sym_output_decls, 3196),
     (sym_in_out_decls, 3196), (sym_var_decls, 3196), (sym_temp_var_decls, 3196),
     (sym_external_var_decls, 3197), (sym_global_var_decls, 2947), (sym_func_body, 10104),
     (sym_method_decl, 3159), (sym__method_decl_variables, 977), (sym_prog_access_decls, 3043),
     (sym_config_init, 3047), (sym_variable_access, 7530), (sym_func_call, 2961),
     (sym_stmt_list, 8165), (sym__stmt, 2024), (sym_assign, 3150), (sym_if_stmt, 3150),
     (sym_case_stmt, 3150), (sym_for_stmt, 3150), (sym_while_stmt, 3150), (sym_repeat_stmt, 3150),
     (sym_raise_stmt, 3150), (sym_try_stmt, 3150), (sym_ERR_clause_outside_try, 3150),
     (sym_begin_path_expression, 2943), (sym_invocation, 2934), (sym_any_invocation, 2935),
     (sym_this_invocation, 2641), (sym_super_invocation, 2641), (sym_super_body_invocation, 2935),
     (sym_path_expression, 2627), (sym_field_expression, 2373), (sym_index_expression, 2373),
     (sym_ladder_diagram, 8165), (sym_fb_diagram, 8165), (aux_sym_func_decl_repeat1, 7194),
     (aux_sym_method_decl_repeat1, 977), (aux_sym_stmt_list_repeat1, 2024),
     (aux_sym_ladder_diagram_repeat1, 7628), (aux_sym_fb_diagram_repeat1, 7633),
     (sym_identifier, 298), (anon_sym_COLON, 2226),
     (aux_sym_ERR_unexpected_this_in_path_token1, 304),
     (aux_sym_ERR_unexpected_super_in_path_token1, 306), (sym_line_comment, 3),
     (anon_sym_LBRACE, 308), (aux_sym_test_pragma_token1, 9), (aux_sym_once_pragma_token1, 11),
     (aux_sym_must_call_pragma_token1, 13), (aux_sym_export_pragma_token1, 15),
     (anon_sym_SEMI, 310), (anon_sym_PERCENT, 312), (aux_sym_input_decls_token1, 2094),
     (aux_sym_output_decls_token1, 2096), (aux_sym_in_out_decls_token1, 318),
     (aux_sym_var_decls_token1, 2098), (aux_sym_temp_var_decls_token1, 322),
     (aux_sym_external_var_decls_token1, 324), (aux_sym_global_var_decls_token1, 326),
     (aux_sym_method_decl_token1, 330), (aux_sym_method_decl_token3, 2228),
     (aux_sym_prog_access_decls_token1, 332), (aux_sym_config_init_token1, 336),
     (aux_sym__stmt_token1, 340), (aux_sym__stmt_token2, 340), (aux_sym__stmt_token3, 340),
     (aux_sym_if_stmt_token1, 342), (aux_sym_case_stmt_token1, 344), (aux_sym_for_stmt_token1, 346),
     (aux_sym_while_stmt_token1, 348), (aux_sym_repeat_stmt_token1, 350),
     (aux_sym_raise_stmt_token1, 352), (aux_sym_try_stmt_token1, 354),
     (aux_sym_try_stmt_token2, 356), (aux_sym_catch_clause_token1, 356),
     (aux_sym_finally_clause_token1, 356), (sym_ld_rung, 2102), (sym_fbd_network, 2104),
     (sym_c_style_comment, 3), (sym_pascal_style_comment, 3), (sym_pragma, 3)]"

lemma ts_parse_row_916_scan: "row_scan tokens_63_2 0 ts_parse_row_916 = Some (Suc (Suc (Suc (Suc 0))))"
  unfolding ts_parse_row_916_def by simp

text \<open>Lines 158582 to 158686.\<close>

definition ts_parse_row_917 :: parse_row where
  "ts_parse_row_917 =
    [(sym_ERR_assign_func_call, 7530), (sym_ERR_unexpected_this_in_path, 2372),
     (sym_ERR_unexpected_super_in_path, 2372), (sym_ERR_var_access_not_allowed, 3196),
     (sym_ERR_var_config_not_allowed, 3196), (sym_ERR_var_external_not_allowed, 3196),
     (sym_ERR_var_global_not_allowed, 3196), (sym_ERR_method_decl_in_body, 3150),
     (sym_extern_pragma, 7490), (sym_wasm_pragma, 3150), (sym_warn_pragma, 7490),
     (sym_allow_pragma, 3140), (sym_test_pragma, 7490), (sym_once_pragma, 7490),
     (sym_must_call_pragma, 7490), (sym_export_pragma, 7490), (sym_pou_pragma, 7194),
     (sym_direct_variable, 7675), (sym_deref_expression, 2373), (sym_variable, 7599),
     (sym_var_access, 2373), (sym_input_decls, 3196), (sym_output_decls, 3196),
     (sym_in_out_decls, 3196), (sym_var_decls, 3196), (sym_temp_var_decls, 3196),
     (sym_external_var_decls, 3197), (sym_global_var_decls, 2947), (sym_func_body, 10106),
     (sym_method_decl, 3159), (sym__method_decl_variables, 978), (sym_prog_access_decls, 3043),
     (sym_config_init, 3047), (sym_variable_access, 7530), (sym_func_call, 2961),
     (sym_stmt_list, 8165), (sym__stmt, 2024), (sym_assign, 3150), (sym_if_stmt, 3150),
     (sym_case_stmt, 3150), (sym_for_stmt, 3150), (sym_while_stmt, 3150), (sym_repeat_stmt, 3150),
     (sym_raise_stmt, 3150), (sym_try_stmt, 3150), (sym_ERR_clause_outside_try, 3150),
     (sym_begin_path_expression, 2943), (sym_invocation, 2934), (sym_any_invocation, 2935),
     (sym_this_invocation, 2641), (sym_super_invocation, 2641), (sym_super_body_invocation, 2935),
     (sym_path_expression, 2627), (sym_field_expression, 2373), (sym_index_expression, 2373),
     (sym_ladder_diagram, 8165), (sym_fb_diagram, 8165), (aux_sym_func_decl_repeat1, 7194),
     (aux_sym_method_decl_repeat1, 978), (aux_sym_stmt_list_repeat1, 2024),
     (aux_sym_ladder_diagram_repeat1, 7628), (aux_sym_fb_diagram_repeat1, 7633),
     (sym_identifier, 298), (anon_sym_COLON, 2230),
     (aux_sym_ERR_unexpected_this_in_path_token1, 304),
     (aux_sym_ERR_unexpected_super_in_path_token1, 306), (sym_line_comment, 3),
     (anon_sym_LBRACE, 308), (aux_sym_test_pragma_token1, 9), (aux_sym_once_pragma_token1, 11),
     (aux_sym_must_call_pragma_token1, 13), (aux_sym_export_pragma_token1, 15),
     (anon_sym_SEMI, 310), (anon_sym_PERCENT, 312), (aux_sym_input_decls_token1, 2094),
     (aux_sym_output_decls_token1, 2096), (aux_sym_in_out_decls_token1, 318),
     (aux_sym_var_decls_token1, 2098), (aux_sym_temp_var_decls_token1, 322),
     (aux_sym_external_var_decls_token1, 324), (aux_sym_global_var_decls_token1, 326),
     (aux_sym_method_decl_token1, 330), (aux_sym_method_decl_token3, 2232),
     (aux_sym_prog_access_decls_token1, 332), (aux_sym_config_init_token1, 336),
     (aux_sym__stmt_token1, 340), (aux_sym__stmt_token2, 340), (aux_sym__stmt_token3, 340),
     (aux_sym_if_stmt_token1, 342), (aux_sym_case_stmt_token1, 344), (aux_sym_for_stmt_token1, 346),
     (aux_sym_while_stmt_token1, 348), (aux_sym_repeat_stmt_token1, 350),
     (aux_sym_raise_stmt_token1, 352), (aux_sym_try_stmt_token1, 354),
     (aux_sym_try_stmt_token2, 356), (aux_sym_catch_clause_token1, 356),
     (aux_sym_finally_clause_token1, 356), (sym_ld_rung, 2102), (sym_fbd_network, 2104),
     (sym_c_style_comment, 3), (sym_pascal_style_comment, 3), (sym_pragma, 3)]"

lemma ts_parse_row_917_scan: "row_scan tokens_63_2 0 ts_parse_row_917 = Some (Suc (Suc (Suc (Suc 0))))"
  unfolding ts_parse_row_917_def by simp

text \<open>Lines 158687 to 158791.\<close>

definition ts_parse_row_918 :: parse_row where
  "ts_parse_row_918 =
    [(sym_ERR_assign_func_call, 7530), (sym_ERR_unexpected_this_in_path, 2372),
     (sym_ERR_unexpected_super_in_path, 2372), (sym_ERR_var_access_not_allowed, 3196),
     (sym_ERR_var_config_not_allowed, 3196), (sym_ERR_var_external_not_allowed, 3196),
     (sym_ERR_var_global_not_allowed, 3196), (sym_ERR_method_decl_in_body, 3150),
     (sym_extern_pragma, 7490), (sym_wasm_pragma, 3150), (sym_warn_pragma, 7490),
     (sym_allow_pragma, 3140), (sym_test_pragma, 7490), (sym_once_pragma, 7490),
     (sym_must_call_pragma, 7490), (sym_export_pragma, 7490), (sym_pou_pragma, 7194),
     (sym_direct_variable, 7675), (sym_deref_expression, 2373), (sym_variable, 7599),
     (sym_var_access, 2373), (sym_input_decls, 3196), (sym_output_decls, 3196),
     (sym_in_out_decls, 3196), (sym_var_decls, 3196), (sym_temp_var_decls, 3196),
     (sym_external_var_decls, 3197), (sym_global_var_decls, 2947), (sym_func_body, 10112),
     (sym_method_decl, 3159), (sym__method_decl_variables, 982), (sym_prog_access_decls, 3043),
     (sym_config_init, 3047), (sym_variable_access, 7530), (sym_func_call, 2961),
     (sym_stmt_list, 8165), (sym__stmt, 2024), (sym_assign, 3150), (sym_if_stmt, 3150),
     (sym_case_stmt, 3150), (sym_for_stmt, 3150), (sym_while_stmt, 3150), (sym_repeat_stmt, 3150),
     (sym_raise_stmt, 3150), (sym_try_stmt, 3150), (sym_ERR_clause_outside_try, 3150),
     (sym_begin_path_expression, 2943), (sym_invocation, 2934), (sym_any_invocation, 2935),
     (sym_this_invocation, 2641), (sym_super_invocation, 2641), (sym_super_body_invocation, 2935),
     (sym_path_expression, 2627), (sym_field_expression, 2373), (sym_index_expression, 2373),
     (sym_ladder_diagram, 8165), (sym_fb_diagram, 8165), (aux_sym_func_decl_repeat1, 7194),
     (aux_sym_method_decl_repeat1, 982), (aux_sym_stmt_list_repeat1, 2024),
     (aux_sym_ladder_diagram_repeat1, 7628), (aux_sym_fb_diagram_repeat1, 7633),
     (sym_identifier, 298), (anon_sym_COLON, 2234),
     (aux_sym_ERR_unexpected_this_in_path_token1, 304),
     (aux_sym_ERR_unexpected_super_in_path_token1, 306), (sym_line_comment, 3),
     (anon_sym_LBRACE, 308), (aux_sym_test_pragma_token1, 9), (aux_sym_once_pragma_token1, 11),
     (aux_sym_must_call_pragma_token1, 13), (aux_sym_export_pragma_token1, 15),
     (anon_sym_SEMI, 310), (anon_sym_PERCENT, 312), (aux_sym_input_decls_token1, 2094),
     (aux_sym_output_decls_token1, 2096), (aux_sym_in_out_decls_token1, 318),
     (aux_sym_var_decls_token1, 2098), (aux_sym_temp_var_decls_token1, 322),
     (aux_sym_external_var_decls_token1, 324), (aux_sym_global_var_decls_token1, 326),
     (aux_sym_method_decl_token1, 330), (aux_sym_method_decl_token3, 2236),
     (aux_sym_prog_access_decls_token1, 332), (aux_sym_config_init_token1, 336),
     (aux_sym__stmt_token1, 340), (aux_sym__stmt_token2, 340), (aux_sym__stmt_token3, 340),
     (aux_sym_if_stmt_token1, 342), (aux_sym_case_stmt_token1, 344), (aux_sym_for_stmt_token1, 346),
     (aux_sym_while_stmt_token1, 348), (aux_sym_repeat_stmt_token1, 350),
     (aux_sym_raise_stmt_token1, 352), (aux_sym_try_stmt_token1, 354),
     (aux_sym_try_stmt_token2, 356), (aux_sym_catch_clause_token1, 356),
     (aux_sym_finally_clause_token1, 356), (sym_ld_rung, 2102), (sym_fbd_network, 2104),
     (sym_c_style_comment, 3), (sym_pascal_style_comment, 3), (sym_pragma, 3)]"

lemma ts_parse_row_918_scan: "row_scan tokens_63_2 0 ts_parse_row_918 = Some (Suc (Suc (Suc (Suc 0))))"
  unfolding ts_parse_row_918_def by simp

text \<open>Lines 158792 to 158896.\<close>

definition ts_parse_row_919 :: parse_row where
  "ts_parse_row_919 =
    [(sym_ERR_assign_func_call, 7530), (sym_ERR_unexpected_this_in_path, 2372),
     (sym_ERR_unexpected_super_in_path, 2372), (sym_ERR_var_access_not_allowed, 3196),
     (sym_ERR_var_config_not_allowed, 3196), (sym_ERR_var_external_not_allowed, 3196),
     (sym_ERR_var_global_not_allowed, 3196), (sym_ERR_method_decl_in_body, 3150),
     (sym_extern_pragma, 7490), (sym_wasm_pragma, 3150), (sym_warn_pragma, 7490),
     (sym_allow_pragma, 3140), (sym_test_pragma, 7490), (sym_once_pragma, 7490),
     (sym_must_call_pragma, 7490), (sym_export_pragma, 7490), (sym_pou_pragma, 7194),
     (sym_direct_variable, 7675), (sym_deref_expression, 2373), (sym_variable, 7599),
     (sym_var_access, 2373), (sym_input_decls, 3196), (sym_output_decls, 3196),
     (sym_in_out_decls, 3196), (sym_var_decls, 3196), (sym_temp_var_decls, 3196),
     (sym_external_var_decls, 3197), (sym_global_var_decls, 2947), (sym_func_body, 10129),
     (sym_method_decl, 3159), (sym__method_decl_variables, 985), (sym_prog_access_decls, 3043),
     (sym_config_init, 3047), (sym_variable_access, 7530), (sym_func_call, 2961),
     (sym_stmt_list, 8165), (sym__stmt, 2024), (sym_assign, 3150), (sym_if_stmt, 3150),
     (sym_case_stmt, 3150), (sym_for_stmt, 3150), (sym_while_stmt, 3150), (sym_repeat_stmt, 3150),
     (sym_raise_stmt, 3150), (sym_try_stmt, 3150), (sym_ERR_clause_outside_try, 3150),
     (sym_begin_path_expression, 2943), (sym_invocation, 2934), (sym_any_invocation, 2935),
     (sym_this_invocation, 2641), (sym_super_invocation, 2641), (sym_super_body_invocation, 2935),
     (sym_path_expression, 2627), (sym_field_expression, 2373), (sym_index_expression, 2373),
     (sym_ladder_diagram, 8165), (sym_fb_diagram, 8165), (aux_sym_func_decl_repeat1, 7194),
     (aux_sym_method_decl_repeat1, 985), (aux_sym_stmt_list_repeat1, 2024),
     (aux_sym_ladder_diagram_repeat1, 7628), (aux_sym_fb_diagram_repeat1, 7633),
     (sym_identifier, 298), (anon_sym_COLON, 2238),
     (aux_sym_ERR_unexpected_this_in_path_token1, 304),
     (aux_sym_ERR_unexpected_super_in_path_token1, 306), (sym_line_comment, 3),
     (anon_sym_LBRACE, 308), (aux_sym_test_pragma_token1, 9), (aux_sym_once_pragma_token1, 11),
     (aux_sym_must_call_pragma_token1, 13), (aux_sym_export_pragma_token1, 15),
     (anon_sym_SEMI, 310), (anon_sym_PERCENT, 312), (aux_sym_input_decls_token1, 2094),
     (aux_sym_output_decls_token1, 2096), (aux_sym_in_out_decls_token1, 318),
     (aux_sym_var_decls_token1, 2098), (aux_sym_temp_var_decls_token1, 322),
     (aux_sym_external_var_decls_token1, 324), (aux_sym_global_var_decls_token1, 326),
     (aux_sym_method_decl_token1, 330), (aux_sym_method_decl_token3, 2240),
     (aux_sym_prog_access_decls_token1, 332), (aux_sym_config_init_token1, 336),
     (aux_sym__stmt_token1, 340), (aux_sym__stmt_token2, 340), (aux_sym__stmt_token3, 340),
     (aux_sym_if_stmt_token1, 342), (aux_sym_case_stmt_token1, 344), (aux_sym_for_stmt_token1, 346),
     (aux_sym_while_stmt_token1, 348), (aux_sym_repeat_stmt_token1, 350),
     (aux_sym_raise_stmt_token1, 352), (aux_sym_try_stmt_token1, 354),
     (aux_sym_try_stmt_token2, 356), (aux_sym_catch_clause_token1, 356),
     (aux_sym_finally_clause_token1, 356), (sym_ld_rung, 2102), (sym_fbd_network, 2104),
     (sym_c_style_comment, 3), (sym_pascal_style_comment, 3), (sym_pragma, 3)]"

lemma ts_parse_row_919_scan: "row_scan tokens_63_2 0 ts_parse_row_919 = Some (Suc (Suc (Suc (Suc 0))))"
  unfolding ts_parse_row_919_def by simp

text \<open>Lines 158897 to 159001.\<close>

definition ts_parse_row_920 :: parse_row where
  "ts_parse_row_920 =
    [(sym_ERR_assign_func_call, 7530), (sym_ERR_unexpected_this_in_path, 2372),
     (sym_ERR_unexpected_super_in_path, 2372), (sym_ERR_var_access_not_allowed, 3196),
     (sym_ERR_var_config_not_allowed, 3196), (sym_ERR_var_external_not_allowed, 3196),
     (sym_ERR_var_global_not_allowed, 3196), (sym_ERR_method_decl_in_body, 3150),
     (sym_extern_pragma, 7490), (sym_wasm_pragma, 3150), (sym_warn_pragma, 7490),
     (sym_allow_pragma, 3140), (sym_test_pragma, 7490), (sym_once_pragma, 7490),
     (sym_must_call_pragma, 7490), (sym_export_pragma, 7490), (sym_pou_pragma, 7194),
     (sym_direct_variable, 7675), (sym_deref_expression, 2373), (sym_variable, 7599),
     (sym_var_access, 2373), (sym_input_decls, 3196), (sym_output_decls, 3196),
     (sym_in_out_decls, 3196), (sym_var_decls, 3196), (sym_temp_var_decls, 3196),
     (sym_external_var_decls, 3197), (sym_global_var_decls, 2947), (sym_func_body, 10138),
     (sym_method_decl, 3159), (sym__method_decl_variables, 987), (sym_prog_access_decls, 3043),
     (sym_config_init, 3047), (sym_variable_access, 7530), (sym_func_call, 2961),
     (sym_stmt_list, 8165), (sym__stmt, 2024), (sym_assign, 3150), (sym_if_stmt, 3150),
     (sym_case_stmt, 3150), (sym_for_stmt, 3150), (sym_while_stmt, 3150), (sym_repeat_stmt, 3150),
     (sym_raise_stmt, 3150), (sym_try_stmt, 3150), (sym_ERR_clause_outside_try, 3150),
     (sym_begin_path_expression, 2943), (sym_invocation, 2934), (sym_any_invocation, 2935),
     (sym_this_invocation, 2641), (sym_super_invocation, 2641), (sym_super_body_invocation, 2935),
     (sym_path_expression, 2627), (sym_field_expression, 2373), (sym_index_expression, 2373),
     (sym_ladder_diagram, 8165), (sym_fb_diagram, 8165), (aux_sym_func_decl_repeat1, 7194),
     (aux_sym_method_decl_repeat1, 987), (aux_sym_stmt_list_repeat1, 2024),
     (aux_sym_ladder_diagram_repeat1, 7628), (aux_sym_fb_diagram_repeat1, 7633),
     (sym_identifier, 298), (anon_sym_COLON, 2242),
     (aux_sym_ERR_unexpected_this_in_path_token1, 304),
     (aux_sym_ERR_unexpected_super_in_path_token1, 306), (sym_line_comment, 3),
     (anon_sym_LBRACE, 308), (aux_sym_test_pragma_token1, 9), (aux_sym_once_pragma_token1, 11),
     (aux_sym_must_call_pragma_token1, 13), (aux_sym_export_pragma_token1, 15),
     (anon_sym_SEMI, 310), (anon_sym_PERCENT, 312), (aux_sym_input_decls_token1, 2094),
     (aux_sym_output_decls_token1, 2096), (aux_sym_in_out_decls_token1, 318),
     (aux_sym_var_decls_token1, 2098), (aux_sym_temp_var_decls_token1, 322),
     (aux_sym_external_var_decls_token1, 324), (aux_sym_global_var_decls_token1, 326),
     (aux_sym_method_decl_token1, 330), (aux_sym_method_decl_token3, 2244),
     (aux_sym_prog_access_decls_token1, 332), (aux_sym_config_init_token1, 336),
     (aux_sym__stmt_token1, 340), (aux_sym__stmt_token2, 340), (aux_sym__stmt_token3, 340),
     (aux_sym_if_stmt_token1, 342), (aux_sym_case_stmt_token1, 344), (aux_sym_for_stmt_token1, 346),
     (aux_sym_while_stmt_token1, 348), (aux_sym_repeat_stmt_token1, 350),
     (aux_sym_raise_stmt_token1, 352), (aux_sym_try_stmt_token1, 354),
     (aux_sym_try_stmt_token2, 356), (aux_sym_catch_clause_token1, 356),
     (aux_sym_finally_clause_token1, 356), (sym_ld_rung, 2102), (sym_fbd_network, 2104),
     (sym_c_style_comment, 3), (sym_pascal_style_comment, 3), (sym_pragma, 3)]"

lemma ts_parse_row_920_scan: "row_scan tokens_63_2 0 ts_parse_row_920 = Some (Suc (Suc (Suc (Suc 0))))"
  unfolding ts_parse_row_920_def by simp

text \<open>Lines 159002 to 159106.\<close>

definition ts_parse_row_921 :: parse_row where
  "ts_parse_row_921 =
    [(sym_ERR_assign_func_call, 7530), (sym_ERR_unexpected_this_in_path, 2372),
     (sym_ERR_unexpected_super_in_path, 2372), (sym_ERR_var_access_not_allowed, 3196),
     (sym_ERR_var_config_not_allowed, 3196), (sym_ERR_var_external_not_allowed, 3196),
     (sym_ERR_var_global_not_allowed, 3196), (sym_ERR_method_decl_in_body, 3150),
     (sym_extern_pragma, 7490), (sym_wasm_pragma, 3150), (sym_warn_pragma, 7490),
     (sym_allow_pragma, 3140), (sym_test_pragma, 7490), (sym_once_pragma, 7490),
     (sym_must_call_pragma, 7490), (sym_export_pragma, 7490), (sym_pou_pragma, 7194),
     (sym_direct_variable, 7675), (sym_deref_expression, 2373), (sym_variable, 7599),
     (sym_var_access, 2373), (sym_input_decls, 3196), (sym_output_decls, 3196),
     (sym_in_out_decls, 3196), (sym_var_decls, 3196), (sym_temp_var_decls, 3196),
     (sym_external_var_decls, 3197), (sym_global_var_decls, 2947), (sym_func_body, 8631),
     (sym_method_decl, 3159), (sym__method_decl_variables, 974), (sym_prog_access_decls, 3043),
     (sym_config_init, 3047), (sym_variable_access, 7530), (sym_func_call, 2961),
     (sym_stmt_list, 8165), (sym__stmt, 2024), (sym_assign, 3150), (sym_if_stmt, 3150),
     (sym_case_stmt, 3150), (sym_for_stmt, 3150), (sym_while_stmt, 3150), (sym_repeat_stmt, 3150),
     (sym_raise_stmt, 3150), (sym_try_stmt, 3150), (sym_ERR_clause_outside_try, 3150),
     (sym_begin_path_expression, 2943), (sym_invocation, 2934), (sym_any_invocation, 2935),
     (sym_this_invocation, 2641), (sym_super_invocation, 2641), (sym_super_body_invocation, 2935),
     (sym_path_expression, 2627), (sym_field_expression, 2373), (sym_index_expression, 2373),
     (sym_ladder_diagram, 8165), (sym_fb_diagram, 8165), (aux_sym_func_decl_repeat1, 7194),
     (aux_sym_method_decl_repeat1, 974), (aux_sym_stmt_list_repeat1, 2024),
     (aux_sym_ladder_diagram_repeat1, 7628), (aux_sym_fb_diagram_repeat1, 7633),
     (sym_identifier, 298), (anon_sym_COLON, 2246),
     (aux_sym_ERR_unexpected_this_in_path_token1, 304),
     (aux_sym_ERR_unexpected_super_in_path_token1, 306), (sym_line_comment, 3),
     (anon_sym_LBRACE, 308), (aux_sym_test_pragma_token1, 9), (aux_sym_once_pragma_token1, 11),
     (aux_sym_must_call_pragma_token1, 13), (aux_sym_export_pragma_token1, 15),
     (anon_sym_SEMI, 310), (anon_sym_PERCENT, 312), (aux_sym_input_decls_token1, 2094),
     (aux_sym_output_decls_token1, 2096), (aux_sym_in_out_decls_token1, 318),
     (aux_sym_var_decls_token1, 2098), (aux_sym_temp_var_decls_token1, 322),
     (aux_sym_external_var_decls_token1, 324), (aux_sym_global_var_decls_token1, 326),
     (aux_sym_method_decl_token1, 330), (aux_sym_method_decl_token3, 2248),
     (aux_sym_prog_access_decls_token1, 332), (aux_sym_config_init_token1, 336),
     (aux_sym__stmt_token1, 340), (aux_sym__stmt_token2, 340), (aux_sym__stmt_token3, 340),
     (aux_sym_if_stmt_token1, 342), (aux_sym_case_stmt_token1, 344), (aux_sym_for_stmt_token1, 346),
     (aux_sym_while_stmt_token1, 348), (aux_sym_repeat_stmt_token1, 350),
     (aux_sym_raise_stmt_token1, 352), (aux_sym_try_stmt_token1, 354),
     (aux_sym_try_stmt_token2, 356), (aux_sym_catch_clause_token1, 356),
     (aux_sym_finally_clause_token1, 356), (sym_ld_rung, 2102), (sym_fbd_network, 2104),
     (sym_c_style_comment, 3), (sym_pascal_style_comment, 3), (sym_pragma, 3)]"

lemma ts_parse_row_921_scan: "row_scan tokens_63_2 0 ts_parse_row_921 = Some (Suc (Suc (Suc (Suc 0))))"
  unfolding ts_parse_row_921_def by simp

text \<open>Lines 159107 to 159211.\<close>

definition ts_parse_row_922 :: parse_row where
  "ts_parse_row_922 =
    [(sym_ERR_assign_func_call, 7530), (sym_ERR_unexpected_this_in_path, 2372),
     (sym_ERR_unexpected_super_in_path, 2372), (sym_ERR_var_access_not_allowed, 3196),
     (sym_ERR_var_config_not_allowed, 3196), (sym_ERR_var_external_not_allowed, 3196),
     (sym_ERR_var_global_not_allowed, 3196), (sym_ERR_method_decl_in_body, 3150),
     (sym_extern_pragma, 7490), (sym_wasm_pragma, 3150), (sym_warn_pragma, 7490),
     (sym_allow_pragma, 3140), (sym_test_pragma, 7490), (sym_once_pragma, 7490),
     (sym_must_call_pragma, 7490), (sym_export_pragma, 7490), (sym_pou_pragma, 7194),
     (sym_direct_variable, 7675), (sym_deref_expression, 2373), (sym_variable, 7599),
     (sym_var_access, 2373), (sym_input_decls, 3196), (sym_output_decls, 3196),
     (sym_in_out_decls, 3196), (sym_var_decls, 3196), (sym_temp_var_decls, 3196),
     (sym_external_var_decls, 3197), (sym_global_var_decls, 2947), (sym_func_body, 10149),
     (sym_method_decl, 3159), (sym__method_decl_variables, 993), (sym_prog_access_decls, 3043),
     (sym_config_init, 3047), (sym_variable_access, 7530), (sym_func_call, 2961),
     (sym_stmt_list, 8165), (sym__stmt, 2024), (sym_assign, 3150), (sym_if_stmt, 3150),
     (sym_case_stmt, 3150), (sym_for_stmt, 3150), (sym_while_stmt, 3150), (sym_repeat_stmt, 3150),
     (sym_raise_stmt, 3150), (sym_try_stmt, 3150), (sym_ERR_clause_outside_try, 3150),
     (sym_begin_path_expression, 2943), (sym_invocation, 2934), (sym_any_invocation, 2935),
     (sym_this_invocation, 2641), (sym_super_invocation, 2641), (sym_super_body_invocation, 2935),
     (sym_path_expression, 2627), (sym_field_expression, 2373), (sym_index_expression, 2373),
     (sym_ladder_diagram, 8165), (sym_fb_diagram, 8165), (aux_sym_func_decl_repeat1, 7194),
     (aux_sym_method_decl_repeat1, 993), (aux_sym_stmt_list_repeat1, 2024),
     (aux_sym_ladder_diagram_repeat1, 7628), (aux_sym_fb_diagram_repeat1, 7633),
     (sym_identifier, 298), (anon_sym_COLON, 2250),
     (aux_sym_ERR_unexpected_this_in_path_token1, 304),
     (aux_sym_ERR_unexpected_super_in_path_token1, 306), (sym_line_comment, 3),
     (anon_sym_LBRACE, 308), (aux_sym_test_pragma_token1, 9), (aux_sym_once_pragma_token1, 11),
     (aux_sym_must_call_pragma_token1, 13), (aux_sym_export_pragma_token1, 15),
     (anon_sym_SEMI, 310), (anon_sym_PERCENT, 312), (aux_sym_input_decls_token1, 2094),
     (aux_sym_output_decls_token1, 2096), (aux_sym_in_out_decls_token1, 318),
     (aux_sym_var_decls_token1, 2098), (aux_sym_temp_var_decls_token1, 322),
     (aux_sym_external_var_decls_token1, 324), (aux_sym_global_var_decls_token1, 326),
     (aux_sym_method_decl_token1, 330), (aux_sym_method_decl_token3, 2252),
     (aux_sym_prog_access_decls_token1, 332), (aux_sym_config_init_token1, 336),
     (aux_sym__stmt_token1, 340), (aux_sym__stmt_token2, 340), (aux_sym__stmt_token3, 340),
     (aux_sym_if_stmt_token1, 342), (aux_sym_case_stmt_token1, 344), (aux_sym_for_stmt_token1, 346),
     (aux_sym_while_stmt_token1, 348), (aux_sym_repeat_stmt_token1, 350),
     (aux_sym_raise_stmt_token1, 352), (aux_sym_try_stmt_token1, 354),
     (aux_sym_try_stmt_token2, 356), (aux_sym_catch_clause_token1, 356),
     (aux_sym_finally_clause_token1, 356), (sym_ld_rung, 2102), (sym_fbd_network, 2104),
     (sym_c_style_comment, 3), (sym_pascal_style_comment, 3), (sym_pragma, 3)]"

lemma ts_parse_row_922_scan: "row_scan tokens_63_2 0 ts_parse_row_922 = Some (Suc (Suc (Suc (Suc 0))))"
  unfolding ts_parse_row_922_def by simp

text \<open>Lines 159212 to 159316.\<close>

definition ts_parse_row_923 :: parse_row where
  "ts_parse_row_923 =
    [(sym_ERR_assign_func_call, 7530), (sym_ERR_unexpected_this_in_path, 2372),
     (sym_ERR_unexpected_super_in_path, 2372), (sym_ERR_var_access_not_allowed, 3196),
     (sym_ERR_var_config_not_allowed, 3196), (sym_ERR_var_external_not_allowed, 3196),
     (sym_ERR_var_global_not_allowed, 3196), (sym_ERR_method_decl_in_body, 3150),
     (sym_extern_pragma, 7490), (sym_wasm_pragma, 3150), (sym_warn_pragma, 7490),
     (sym_allow_pragma, 3140), (sym_test_pragma, 7490), (sym_once_pragma, 7490),
     (sym_must_call_pragma, 7490), (sym_export_pragma, 7490), (sym_pou_pragma, 7194),
     (sym_direct_variable, 7675), (sym_deref_expression, 2373), (sym_variable, 7599),
     (sym_var_access, 2373), (sym_input_decls, 3196), (sym_output_decls, 3196),
     (sym_in_out_decls, 3196), (sym_var_decls, 3196), (sym_temp_var_decls, 3196),
     (sym_external_var_decls, 3197), (sym_global_var_decls, 2947), (sym_func_body, 10162),
     (sym_method_decl, 3159), (sym__method_decl_variables, 996), (sym_prog_access_decls, 3043),
     (sym_config_init, 3047), (sym_variable_access, 7530), (sym_func_call, 2961),
     (sym_stmt_list, 8165), (sym__stmt, 2024), (sym_assign, 3150), (sym_if_stmt, 3150),
     (sym_case_stmt, 3150), (sym_for_stmt, 3150), (sym_while_stmt, 3150), (sym_repeat_stmt, 3150),
     (sym_raise_stmt, 3150), (sym_try_stmt, 3150), (sym_ERR_clause_outside_try, 3150),
     (sym_begin_path_expression, 2943), (sym_invocation, 2934), (sym_any_invocation, 2935),
     (sym_this_invocation, 2641), (sym_super_invocation, 2641), (sym_super_body_invocation, 2935),
     (sym_path_expression, 2627), (sym_field_expression, 2373), (sym_index_expression, 2373),
     (sym_ladder_diagram, 8165), (sym_fb_diagram, 8165), (aux_sym_func_decl_repeat1, 7194),
     (aux_sym_method_decl_repeat1, 996), (aux_sym_stmt_list_repeat1, 2024),
     (aux_sym_ladder_diagram_repeat1, 7628), (aux_sym_fb_diagram_repeat1, 7633),
     (sym_identifier, 298), (anon_sym_COLON, 2254),
     (aux_sym_ERR_unexpected_this_in_path_token1, 304),
     (aux_sym_ERR_unexpected_super_in_path_token1, 306), (sym_line_comment, 3),
     (anon_sym_LBRACE, 308), (aux_sym_test_pragma_token1, 9), (aux_sym_once_pragma_token1, 11),
     (aux_sym_must_call_pragma_token1, 13), (aux_sym_export_pragma_token1, 15),
     (anon_sym_SEMI, 310), (anon_sym_PERCENT, 312), (aux_sym_input_decls_token1, 2094),
     (aux_sym_output_decls_token1, 2096), (aux_sym_in_out_decls_token1, 318),
     (aux_sym_var_decls_token1, 2098), (aux_sym_temp_var_decls_token1, 322),
     (aux_sym_external_var_decls_token1, 324), (aux_sym_global_var_decls_token1, 326),
     (aux_sym_method_decl_token1, 330), (aux_sym_method_decl_token3, 2256),
     (aux_sym_prog_access_decls_token1, 332), (aux_sym_config_init_token1, 336),
     (aux_sym__stmt_token1, 340), (aux_sym__stmt_token2, 340), (aux_sym__stmt_token3, 340),
     (aux_sym_if_stmt_token1, 342), (aux_sym_case_stmt_token1, 344), (aux_sym_for_stmt_token1, 346),
     (aux_sym_while_stmt_token1, 348), (aux_sym_repeat_stmt_token1, 350),
     (aux_sym_raise_stmt_token1, 352), (aux_sym_try_stmt_token1, 354),
     (aux_sym_try_stmt_token2, 356), (aux_sym_catch_clause_token1, 356),
     (aux_sym_finally_clause_token1, 356), (sym_ld_rung, 2102), (sym_fbd_network, 2104),
     (sym_c_style_comment, 3), (sym_pascal_style_comment, 3), (sym_pragma, 3)]"

lemma ts_parse_row_923_scan: "row_scan tokens_63_2 0 ts_parse_row_923 = Some (Suc (Suc (Suc (Suc 0))))"
  unfolding ts_parse_row_923_def by simp

text \<open>Lines 159317 to 159421.\<close>

definition ts_parse_row_924 :: parse_row where
  "ts_parse_row_924 =
    [(sym_ERR_assign_func_call, 7530), (sym_ERR_unexpected_this_in_path, 2372),
     (sym_ERR_unexpected_super_in_path, 2372), (sym_ERR_var_access_not_allowed, 3196),
     (sym_ERR_var_config_not_allowed, 3196), (sym_ERR_var_external_not_allowed, 3196),
     (sym_ERR_var_global_not_allowed, 3196), (sym_ERR_method_decl_in_body, 3150),
     (sym_extern_pragma, 7490), (sym_wasm_pragma, 3150), (sym_warn_pragma, 7490),
     (sym_allow_pragma, 3140), (sym_test_pragma, 7490), (sym_once_pragma, 7490),
     (sym_must_call_pragma, 7490), (sym_export_pragma, 7490), (sym_pou_pragma, 7194),
     (sym_direct_variable, 7675), (sym_deref_expression, 2373), (sym_variable, 7599),
     (sym_var_access, 2373), (sym_input_decls, 3196), (sym_output_decls, 3196),
     (sym_in_out_decls, 3196), (sym_var_decls, 3196), (sym_temp_var_decls, 3196),
     (sym_external_var_decls, 3197), (sym_global_var_decls, 2947), (sym_func_body, 10164),
     (sym_method_decl, 3159), (sym__method_decl_variables, 997), (sym_prog_access_decls, 3043),
     (sym_config_init, 3047), (sym_variable_access, 7530), (sym_func_call, 2961),
     (sym_stmt_list, 8165), (sym__stmt, 2024), (sym_assign, 3150), (sym_if_stmt, 3150),
     (sym_case_stmt, 3150), (sym_for_stmt, 3150), (sym_while_stmt, 3150), (sym_repeat_stmt, 3150),
     (sym_raise_stmt, 3150), (sym_try_stmt, 3150), (sym_ERR_clause_outside_try, 3150),
     (sym_begin_path_expression, 2943), (sym_invocation, 2934), (sym_any_invocation, 2935),
     (sym_this_invocation, 2641), (sym_super_invocation, 2641), (sym_super_body_invocation, 2935),
     (sym_path_expression, 2627), (sym_field_expression, 2373), (sym_index_expression, 2373),
     (sym_ladder_diagram, 8165), (sym_fb_diagram, 8165), (aux_sym_func_decl_repeat1, 7194),
     (aux_sym_method_decl_repeat1, 997), (aux_sym_stmt_list_repeat1, 2024),
     (aux_sym_ladder_diagram_repeat1, 7628), (aux_sym_fb_diagram_repeat1, 7633),
     (sym_identifier, 298), (anon_sym_COLON, 2258),
     (aux_sym_ERR_unexpected_this_in_path_token1, 304),
     (aux_sym_ERR_unexpected_super_in_path_token1, 306), (sym_line_comment, 3),
     (anon_sym_LBRACE, 308), (aux_sym_test_pragma_token1, 9), (aux_sym_once_pragma_token1, 11),
     (aux_sym_must_call_pragma_token1, 13), (aux_sym_export_pragma_token1, 15),
     (anon_sym_SEMI, 310), (anon_sym_PERCENT, 312), (aux_sym_input_decls_token1, 2094),
     (aux_sym_output_decls_token1, 2096), (aux_sym_in_out_decls_token1, 318),
     (aux_sym_var_decls_token1, 2098), (aux_sym_temp_var_decls_token1, 322),
     (aux_sym_external_var_decls_token1, 324), (aux_sym_global_var_decls_token1, 326),
     (aux_sym_method_decl_token1, 330), (aux_sym_method_decl_token3, 2260),
     (aux_sym_prog_access_decls_token1, 332), (aux_sym_config_init_token1, 336),
     (aux_sym__stmt_token1, 340), (aux_sym__stmt_token2, 340), (aux_sym__stmt_token3, 340),
     (aux_sym_if_stmt_token1, 342), (aux_sym_case_stmt_token1, 344), (aux_sym_for_stmt_token1, 346),
     (aux_sym_while_stmt_token1, 348), (aux_sym_repeat_stmt_token1, 350),
     (aux_sym_raise_stmt_token1, 352), (aux_sym_try_stmt_token1, 354),
     (aux_sym_try_stmt_token2, 356), (aux_sym_catch_clause_token1, 356),
     (aux_sym_finally_clause_token1, 356), (sym_ld_rung, 2102), (sym_fbd_network, 2104),
     (sym_c_style_comment, 3), (sym_pascal_style_comment, 3), (sym_pragma, 3)]"

lemma ts_parse_row_924_scan: "row_scan tokens_63_2 0 ts_parse_row_924 = Some (Suc (Suc (Suc (Suc 0))))"
  unfolding ts_parse_row_924_def by simp

text \<open>Lines 159422 to 159526.\<close>

definition ts_parse_row_925 :: parse_row where
  "ts_parse_row_925 =
    [(sym_ERR_assign_func_call, 7530), (sym_ERR_unexpected_this_in_path, 2372),
     (sym_ERR_unexpected_super_in_path, 2372), (sym_ERR_var_access_not_allowed, 3196),
     (sym_ERR_var_config_not_allowed, 3196), (sym_ERR_var_external_not_allowed, 3196),
     (sym_ERR_var_global_not_allowed, 3196), (sym_ERR_method_decl_in_body, 3150),
     (sym_extern_pragma, 7490), (sym_wasm_pragma, 3150), (sym_warn_pragma, 7490),
     (sym_allow_pragma, 3140), (sym_test_pragma, 7490), (sym_once_pragma, 7490),
     (sym_must_call_pragma, 7490), (sym_export_pragma, 7490), (sym_pou_pragma, 7194),
     (sym_direct_variable, 7675), (sym_deref_expression, 2373), (sym_variable, 7599),
     (sym_var_access, 2373), (sym_input_decls, 3196), (sym_output_decls, 3196),
     (sym_in_out_decls, 3196), (sym_var_decls, 3196), (sym_temp_var_decls, 3196),
     (sym_external_var_decls, 3197), (sym_global_var_decls, 2947), (sym_func_body, 10170),
     (sym_method_decl, 3159), (sym__method_decl_variables, 1001), (sym_prog_access_decls, 3043),
     (sym_config_init, 3047), (sym_variable_access, 7530), (sym_func_call, 2961),
     (sym_stmt_list, 8165), (sym__stmt, 2024), (sym_assign, 3150), (sym_if_stmt, 3150),
     (sym_case_stmt, 3150), (sym_for_stmt, 3150), (sym_while_stmt, 3150), (sym_repeat_stmt, 3150),
     (sym_raise_stmt, 3150), (sym_try_stmt, 3150), (sym_ERR_clause_outside_try, 3150),
     (sym_begin_path_expression, 2943), (sym_invocation, 2934), (sym_any_invocation, 2935),
     (sym_this_invocation, 2641), (sym_super_invocation, 2641), (sym_super_body_invocation, 2935),
     (sym_path_expression, 2627), (sym_field_expression, 2373), (sym_index_expression, 2373),
     (sym_ladder_diagram, 8165), (sym_fb_diagram, 8165), (aux_sym_func_decl_repeat1, 7194),
     (aux_sym_method_decl_repeat1, 1001), (aux_sym_stmt_list_repeat1, 2024),
     (aux_sym_ladder_diagram_repeat1, 7628), (aux_sym_fb_diagram_repeat1, 7633),
     (sym_identifier, 298), (anon_sym_COLON, 2262),
     (aux_sym_ERR_unexpected_this_in_path_token1, 304),
     (aux_sym_ERR_unexpected_super_in_path_token1, 306), (sym_line_comment, 3),
     (anon_sym_LBRACE, 308), (aux_sym_test_pragma_token1, 9), (aux_sym_once_pragma_token1, 11),
     (aux_sym_must_call_pragma_token1, 13), (aux_sym_export_pragma_token1, 15),
     (anon_sym_SEMI, 310), (anon_sym_PERCENT, 312), (aux_sym_input_decls_token1, 2094),
     (aux_sym_output_decls_token1, 2096), (aux_sym_in_out_decls_token1, 318),
     (aux_sym_var_decls_token1, 2098), (aux_sym_temp_var_decls_token1, 322),
     (aux_sym_external_var_decls_token1, 324), (aux_sym_global_var_decls_token1, 326),
     (aux_sym_method_decl_token1, 330), (aux_sym_method_decl_token3, 2264),
     (aux_sym_prog_access_decls_token1, 332), (aux_sym_config_init_token1, 336),
     (aux_sym__stmt_token1, 340), (aux_sym__stmt_token2, 340), (aux_sym__stmt_token3, 340),
     (aux_sym_if_stmt_token1, 342), (aux_sym_case_stmt_token1, 344), (aux_sym_for_stmt_token1, 346),
     (aux_sym_while_stmt_token1, 348), (aux_sym_repeat_stmt_token1, 350),
     (aux_sym_raise_stmt_token1, 352), (aux_sym_try_stmt_token1, 354),
     (aux_sym_try_stmt_token2, 356), (aux_sym_catch_clause_token1, 356),
     (aux_sym_finally_clause_token1, 356), (sym_ld_rung, 2102), (sym_fbd_network, 2104),
     (sym_c_style_comment, 3), (sym_pascal_style_comment, 3), (sym_pragma, 3)]"

lemma ts_parse_row_925_scan: "row_scan tokens_63_2 0 ts_parse_row_925 = Some (Suc (Suc (Suc (Suc 0))))"
  unfolding ts_parse_row_925_def by simp

text \<open>Lines 159527 to 159631.\<close>

definition ts_parse_row_926 :: parse_row where
  "ts_parse_row_926 =
    [(sym_ERR_assign_func_call, 7530), (sym_ERR_unexpected_this_in_path, 2372),
     (sym_ERR_unexpected_super_in_path, 2372), (sym_ERR_var_access_not_allowed, 3196),
     (sym_ERR_var_config_not_allowed, 3196), (sym_ERR_var_external_not_allowed, 3196),
     (sym_ERR_var_global_not_allowed, 3196), (sym_ERR_method_decl_in_body, 3150),
     (sym_extern_pragma, 7490), (sym_wasm_pragma, 3150), (sym_warn_pragma, 7490),
     (sym_allow_pragma, 3140), (sym_test_pragma, 7490), (sym_once_pragma, 7490),
     (sym_must_call_pragma, 7490), (sym_export_pragma, 7490), (sym_pou_pragma, 7194),
     (sym_direct_variable, 7675), (sym_deref_expression, 2373), (sym_variable, 7599),
     (sym_var_access, 2373), (sym_input_decls, 3196), (sym_output_decls, 3196),
     (sym_in_out_decls, 3196), (sym_var_decls, 3196), (sym_temp_var_decls, 3196),
     (sym_external_var_decls, 3197), (sym_global_var_decls, 2947), (sym_func_body, 10181),
     (sym_method_decl, 3159), (sym__method_decl_variables, 1005), (sym_prog_access_decls, 3043),
     (sym_config_init, 3047), (sym_variable_access, 7530), (sym_func_call, 2961),
     (sym_stmt_list, 8165), (sym__stmt, 2024), (sym_assign, 3150), (sym_if_stmt, 3150),
     (sym_case_stmt, 3150), (sym_for_stmt, 3150), (sym_while_stmt, 3150), (sym_repeat_stmt, 3150),
     (sym_raise_stmt, 3150), (sym_try_stmt, 3150), (sym_ERR_clause_outside_try, 3150),
     (sym_begin_path_expression, 2943), (sym_invocation, 2934), (sym_any_invocation, 2935),
     (sym_this_invocation, 2641), (sym_super_invocation, 2641), (sym_super_body_invocation, 2935),
     (sym_path_expression, 2627), (sym_field_expression, 2373), (sym_index_expression, 2373),
     (sym_ladder_diagram, 8165), (sym_fb_diagram, 8165), (aux_sym_func_decl_repeat1, 7194),
     (aux_sym_method_decl_repeat1, 1005), (aux_sym_stmt_list_repeat1, 2024),
     (aux_sym_ladder_diagram_repeat1, 7628), (aux_sym_fb_diagram_repeat1, 7633),
     (sym_identifier, 298), (anon_sym_COLON, 2266),
     (aux_sym_ERR_unexpected_this_in_path_token1, 304),
     (aux_sym_ERR_unexpected_super_in_path_token1, 306), (sym_line_comment, 3),
     (anon_sym_LBRACE, 308), (aux_sym_test_pragma_token1, 9), (aux_sym_once_pragma_token1, 11),
     (aux_sym_must_call_pragma_token1, 13), (aux_sym_export_pragma_token1, 15),
     (anon_sym_SEMI, 310), (anon_sym_PERCENT, 312), (aux_sym_input_decls_token1, 2094),
     (aux_sym_output_decls_token1, 2096), (aux_sym_in_out_decls_token1, 318),
     (aux_sym_var_decls_token1, 2098), (aux_sym_temp_var_decls_token1, 322),
     (aux_sym_external_var_decls_token1, 324), (aux_sym_global_var_decls_token1, 326),
     (aux_sym_method_decl_token1, 330), (aux_sym_method_decl_token3, 2268),
     (aux_sym_prog_access_decls_token1, 332), (aux_sym_config_init_token1, 336),
     (aux_sym__stmt_token1, 340), (aux_sym__stmt_token2, 340), (aux_sym__stmt_token3, 340),
     (aux_sym_if_stmt_token1, 342), (aux_sym_case_stmt_token1, 344), (aux_sym_for_stmt_token1, 346),
     (aux_sym_while_stmt_token1, 348), (aux_sym_repeat_stmt_token1, 350),
     (aux_sym_raise_stmt_token1, 352), (aux_sym_try_stmt_token1, 354),
     (aux_sym_try_stmt_token2, 356), (aux_sym_catch_clause_token1, 356),
     (aux_sym_finally_clause_token1, 356), (sym_ld_rung, 2102), (sym_fbd_network, 2104),
     (sym_c_style_comment, 3), (sym_pascal_style_comment, 3), (sym_pragma, 3)]"

lemma ts_parse_row_926_scan: "row_scan tokens_63_2 0 ts_parse_row_926 = Some (Suc (Suc (Suc (Suc 0))))"
  unfolding ts_parse_row_926_def by simp

text \<open>Lines 159632 to 159736.\<close>

definition ts_parse_row_927 :: parse_row where
  "ts_parse_row_927 =
    [(sym_ERR_assign_func_call, 7530), (sym_ERR_unexpected_this_in_path, 2372),
     (sym_ERR_unexpected_super_in_path, 2372), (sym_ERR_var_access_not_allowed, 3196),
     (sym_ERR_var_config_not_allowed, 3196), (sym_ERR_var_external_not_allowed, 3196),
     (sym_ERR_var_global_not_allowed, 3196), (sym_ERR_method_decl_in_body, 3150),
     (sym_extern_pragma, 7490), (sym_wasm_pragma, 3150), (sym_warn_pragma, 7490),
     (sym_allow_pragma, 3140), (sym_test_pragma, 7490), (sym_once_pragma, 7490),
     (sym_must_call_pragma, 7490), (sym_export_pragma, 7490), (sym_pou_pragma, 7194),
     (sym_direct_variable, 7675), (sym_deref_expression, 2373), (sym_variable, 7599),
     (sym_var_access, 2373), (sym_input_decls, 3196), (sym_output_decls, 3196),
     (sym_in_out_decls, 3196), (sym_var_decls, 3196), (sym_temp_var_decls, 3196),
     (sym_external_var_decls, 3197), (sym_global_var_decls, 2947), (sym_func_body, 10193),
     (sym_method_decl, 3159), (sym__method_decl_variables, 1009), (sym_prog_access_decls, 3043),
     (sym_config_init, 3047), (sym_variable_access, 7530), (sym_func_call, 2961),
     (sym_stmt_list, 8165), (sym__stmt, 2024), (sym_assign, 3150), (sym_if_stmt, 3150),
     (sym_case_stmt, 3150), (sym_for_stmt, 3150), (sym_while_stmt, 3150), (sym_repeat_stmt, 3150),
     (sym_raise_stmt, 3150), (sym_try_stmt, 3150), (sym_ERR_clause_outside_try, 3150),
     (sym_begin_path_expression, 2943), (sym_invocation, 2934), (sym_any_invocation, 2935),
     (sym_this_invocation, 2641), (sym_super_invocation, 2641), (sym_super_body_invocation, 2935),
     (sym_path_expression, 2627), (sym_field_expression, 2373), (sym_index_expression, 2373),
     (sym_ladder_diagram, 8165), (sym_fb_diagram, 8165), (aux_sym_func_decl_repeat1, 7194),
     (aux_sym_method_decl_repeat1, 1009), (aux_sym_stmt_list_repeat1, 2024),
     (aux_sym_ladder_diagram_repeat1, 7628), (aux_sym_fb_diagram_repeat1, 7633),
     (sym_identifier, 298), (anon_sym_COLON, 2270),
     (aux_sym_ERR_unexpected_this_in_path_token1, 304),
     (aux_sym_ERR_unexpected_super_in_path_token1, 306), (sym_line_comment, 3),
     (anon_sym_LBRACE, 308), (aux_sym_test_pragma_token1, 9), (aux_sym_once_pragma_token1, 11),
     (aux_sym_must_call_pragma_token1, 13), (aux_sym_export_pragma_token1, 15),
     (anon_sym_SEMI, 310), (anon_sym_PERCENT, 312), (aux_sym_input_decls_token1, 2094),
     (aux_sym_output_decls_token1, 2096), (aux_sym_in_out_decls_token1, 318),
     (aux_sym_var_decls_token1, 2098), (aux_sym_temp_var_decls_token1, 322),
     (aux_sym_external_var_decls_token1, 324), (aux_sym_global_var_decls_token1, 326),
     (aux_sym_method_decl_token1, 330), (aux_sym_method_decl_token3, 2272),
     (aux_sym_prog_access_decls_token1, 332), (aux_sym_config_init_token1, 336),
     (aux_sym__stmt_token1, 340), (aux_sym__stmt_token2, 340), (aux_sym__stmt_token3, 340),
     (aux_sym_if_stmt_token1, 342), (aux_sym_case_stmt_token1, 344), (aux_sym_for_stmt_token1, 346),
     (aux_sym_while_stmt_token1, 348), (aux_sym_repeat_stmt_token1, 350),
     (aux_sym_raise_stmt_token1, 352), (aux_sym_try_stmt_token1, 354),
     (aux_sym_try_stmt_token2, 356), (aux_sym_catch_clause_token1, 356),
     (aux_sym_finally_clause_token1, 356), (sym_ld_rung, 2102), (sym_fbd_network, 2104),
     (sym_c_style_comment, 3), (sym_pascal_style_comment, 3), (sym_pragma, 3)]"

lemma ts_parse_row_927_scan: "row_scan tokens_63_2 0 ts_parse_row_927 = Some (Suc (Suc (Suc (Suc 0))))"
  unfolding ts_parse_row_927_def by simp

text \<open>Lines 159737 to 159841.\<close>

definition ts_parse_row_928 :: parse_row where
  "ts_parse_row_928 =
    [(sym_ERR_assign_func_call, 7530), (sym_ERR_unexpected_this_in_path, 2372),
     (sym_ERR_unexpected_super_in_path, 2372), (sym_ERR_var_access_not_allowed, 3196),
     (sym_ERR_var_config_not_allowed, 3196), (sym_ERR_var_external_not_allowed, 3196),
     (sym_ERR_var_global_not_allowed, 3196), (sym_ERR_method_decl_in_body, 3150),
     (sym_extern_pragma, 7490), (sym_wasm_pragma, 3150), (sym_warn_pragma, 7490),
     (sym_allow_pragma, 3140), (sym_test_pragma, 7490), (sym_once_pragma, 7490),
     (sym_must_call_pragma, 7490), (sym_export_pragma, 7490), (sym_pou_pragma, 7194),
     (sym_direct_variable, 7675), (sym_deref_expression, 2373), (sym_variable, 7599),
     (sym_var_access, 2373), (sym_input_decls, 3196), (sym_output_decls, 3196),
     (sym_in_out_decls, 3196), (sym_var_decls, 3196), (sym_temp_var_decls, 3196),
     (sym_external_var_decls, 3197), (sym_global_var_decls, 2947), (sym_func_body, 10202),
     (sym_method_decl, 3159), (sym__method_decl_variables, 1014), (sym_prog_access_decls, 3043),
     (sym_config_init, 3047), (sym_variable_access, 7530), (sym_func_call, 2961),
     (sym_stmt_list, 8165), (sym__stmt, 2024), (sym_assign, 3150), (sym_if_stmt, 3150),
     (sym_case_stmt, 3150), (sym_for_stmt, 3150), (sym_while_stmt, 3150), (sym_repeat_stmt, 3150),
     (sym_raise_stmt, 3150), (sym_try_stmt, 3150), (sym_ERR_clause_outside_try, 3150),
     (sym_begin_path_expression, 2943), (sym_invocation, 2934), (sym_any_invocation, 2935),
     (sym_this_invocation, 2641), (sym_super_invocation, 2641), (sym_super_body_invocation, 2935),
     (sym_path_expression, 2627), (sym_field_expression, 2373), (sym_index_expression, 2373),
     (sym_ladder_diagram, 8165), (sym_fb_diagram, 8165), (aux_sym_func_decl_repeat1, 7194),
     (aux_sym_method_decl_repeat1, 1014), (aux_sym_stmt_list_repeat1, 2024),
     (aux_sym_ladder_diagram_repeat1, 7628), (aux_sym_fb_diagram_repeat1, 7633),
     (sym_identifier, 298), (anon_sym_COLON, 2274),
     (aux_sym_ERR_unexpected_this_in_path_token1, 304),
     (aux_sym_ERR_unexpected_super_in_path_token1, 306), (sym_line_comment, 3),
     (anon_sym_LBRACE, 308), (aux_sym_test_pragma_token1, 9), (aux_sym_once_pragma_token1, 11),
     (aux_sym_must_call_pragma_token1, 13), (aux_sym_export_pragma_token1, 15),
     (anon_sym_SEMI, 310), (anon_sym_PERCENT, 312), (aux_sym_input_decls_token1, 2094),
     (aux_sym_output_decls_token1, 2096), (aux_sym_in_out_decls_token1, 318),
     (aux_sym_var_decls_token1, 2098), (aux_sym_temp_var_decls_token1, 322),
     (aux_sym_external_var_decls_token1, 324), (aux_sym_global_var_decls_token1, 326),
     (aux_sym_method_decl_token1, 330), (aux_sym_method_decl_token3, 2276),
     (aux_sym_prog_access_decls_token1, 332), (aux_sym_config_init_token1, 336),
     (aux_sym__stmt_token1, 340), (aux_sym__stmt_token2, 340), (aux_sym__stmt_token3, 340),
     (aux_sym_if_stmt_token1, 342), (aux_sym_case_stmt_token1, 344), (aux_sym_for_stmt_token1, 346),
     (aux_sym_while_stmt_token1, 348), (aux_sym_repeat_stmt_token1, 350),
     (aux_sym_raise_stmt_token1, 352), (aux_sym_try_stmt_token1, 354),
     (aux_sym_try_stmt_token2, 356), (aux_sym_catch_clause_token1, 356),
     (aux_sym_finally_clause_token1, 356), (sym_ld_rung, 2102), (sym_fbd_network, 2104),
     (sym_c_style_comment, 3), (sym_pascal_style_comment, 3), (sym_pragma, 3)]"

lemma ts_parse_row_928_scan: "row_scan tokens_63_2 0 ts_parse_row_928 = Some (Suc (Suc (Suc (Suc 0))))"
  unfolding ts_parse_row_928_def by simp

text \<open>Lines 159842 to 159946.\<close>

definition ts_parse_row_929 :: parse_row where
  "ts_parse_row_929 =
    [(sym_ERR_assign_func_call, 7530), (sym_ERR_unexpected_this_in_path, 2372),
     (sym_ERR_unexpected_super_in_path, 2372), (sym_ERR_var_access_not_allowed, 3196),
     (sym_ERR_var_config_not_allowed, 3196), (sym_ERR_var_external_not_allowed, 3196),
     (sym_ERR_var_global_not_allowed, 3196), (sym_ERR_method_decl_in_body, 3150),
     (sym_extern_pragma, 7490), (sym_wasm_pragma, 3150), (sym_warn_pragma, 7490),
     (sym_allow_pragma, 3140), (sym_test_pragma, 7490), (sym_once_pragma, 7490),
     (sym_must_call_pragma, 7490), (sym_export_pragma, 7490), (sym_pou_pragma, 7194),
     (sym_direct_variable, 7675), (sym_deref_expression, 2373), (sym_variable, 7599),
     (sym_var_access, 2373), (sym_input_decls, 3196), (sym_output_decls, 3196),
     (sym_in_out_decls, 3196), (sym_var_decls, 3196), (sym_temp_var_decls, 3196),
     (sym_external_var_decls, 3197), (sym_global_var_decls, 2947), (sym_func_body, 10204),
     (sym_method_decl, 3159), (sym__method_decl_variables, 1015), (sym_prog_access_decls, 3043),
     (sym_config_init, 3047), (sym_variable_access, 7530), (sym_func_call, 2961),
     (sym_stmt_list, 8165), (sym__stmt, 2024), (sym_assign, 3150), (sym_if_stmt, 3150),
     (sym_case_stmt, 3150), (sym_for_stmt, 3150), (sym_while_stmt, 3150), (sym_repeat_stmt, 3150),
     (sym_raise_stmt, 3150), (sym_try_stmt, 3150), (sym_ERR_clause_outside_try, 3150),
     (sym_begin_path_expression, 2943), (sym_invocation, 2934), (sym_any_invocation, 2935),
     (sym_this_invocation, 2641), (sym_super_invocation, 2641), (sym_super_body_invocation, 2935),
     (sym_path_expression, 2627), (sym_field_expression, 2373), (sym_index_expression, 2373),
     (sym_ladder_diagram, 8165), (sym_fb_diagram, 8165), (aux_sym_func_decl_repeat1, 7194),
     (aux_sym_method_decl_repeat1, 1015), (aux_sym_stmt_list_repeat1, 2024),
     (aux_sym_ladder_diagram_repeat1, 7628), (aux_sym_fb_diagram_repeat1, 7633),
     (sym_identifier, 298), (anon_sym_COLON, 2278),
     (aux_sym_ERR_unexpected_this_in_path_token1, 304),
     (aux_sym_ERR_unexpected_super_in_path_token1, 306), (sym_line_comment, 3),
     (anon_sym_LBRACE, 308), (aux_sym_test_pragma_token1, 9), (aux_sym_once_pragma_token1, 11),
     (aux_sym_must_call_pragma_token1, 13), (aux_sym_export_pragma_token1, 15),
     (anon_sym_SEMI, 310), (anon_sym_PERCENT, 312), (aux_sym_input_decls_token1, 2094),
     (aux_sym_output_decls_token1, 2096), (aux_sym_in_out_decls_token1, 318),
     (aux_sym_var_decls_token1, 2098), (aux_sym_temp_var_decls_token1, 322),
     (aux_sym_external_var_decls_token1, 324), (aux_sym_global_var_decls_token1, 326),
     (aux_sym_method_decl_token1, 330), (aux_sym_method_decl_token3, 2280),
     (aux_sym_prog_access_decls_token1, 332), (aux_sym_config_init_token1, 336),
     (aux_sym__stmt_token1, 340), (aux_sym__stmt_token2, 340), (aux_sym__stmt_token3, 340),
     (aux_sym_if_stmt_token1, 342), (aux_sym_case_stmt_token1, 344), (aux_sym_for_stmt_token1, 346),
     (aux_sym_while_stmt_token1, 348), (aux_sym_repeat_stmt_token1, 350),
     (aux_sym_raise_stmt_token1, 352), (aux_sym_try_stmt_token1, 354),
     (aux_sym_try_stmt_token2, 356), (aux_sym_catch_clause_token1, 356),
     (aux_sym_finally_clause_token1, 356), (sym_ld_rung, 2102), (sym_fbd_network, 2104),
     (sym_c_style_comment, 3), (sym_pascal_style_comment, 3), (sym_pragma, 3)]"

lemma ts_parse_row_929_scan: "row_scan tokens_63_2 0 ts_parse_row_929 = Some (Suc (Suc (Suc (Suc 0))))"
  unfolding ts_parse_row_929_def by simp

text \<open>Lines 159947 to 160051.\<close>

definition ts_parse_row_930 :: parse_row where
  "ts_parse_row_930 =
    [(sym_ERR_assign_func_call, 7530), (sym_ERR_unexpected_this_in_path, 2372),
     (sym_ERR_unexpected_super_in_path, 2372), (sym_ERR_var_access_not_allowed, 3196),
     (sym_ERR_var_config_not_allowed, 3196), (sym_ERR_var_external_not_allowed, 3196),
     (sym_ERR_var_global_not_allowed, 3196), (sym_ERR_method_decl_in_body, 3150),
     (sym_extern_pragma, 7490), (sym_wasm_pragma, 3150), (sym_warn_pragma, 7490),
     (sym_allow_pragma, 3140), (sym_test_pragma, 7490), (sym_once_pragma, 7490),
     (sym_must_call_pragma, 7490), (sym_export_pragma, 7490), (sym_pou_pragma, 7194),
     (sym_direct_variable, 7675), (sym_deref_expression, 2373), (sym_variable, 7599),
     (sym_var_access, 2373), (sym_input_decls, 3196), (sym_output_decls, 3196),
     (sym_in_out_decls, 3196), (sym_var_decls, 3196), (sym_temp_var_decls, 3196),
     (sym_external_var_decls, 3197), (sym_global_var_decls, 2947), (sym_func_body, 10227),
     (sym_method_decl, 3159), (sym__method_decl_variables, 1024), (sym_prog_access_decls, 3043),
     (sym_config_init, 3047), (sym_variable_access, 7530), (sym_func_call, 2961),
     (sym_stmt_list, 8165), (sym__stmt, 2024), (sym_assign, 3150), (sym_if_stmt, 3150),
     (sym_case_stmt, 3150), (sym_for_stmt, 3150), (sym_while_stmt, 3150), (sym_repeat_stmt, 3150),
     (sym_raise_stmt, 3150), (sym_try_stmt, 3150), (sym_ERR_clause_outside_try, 3150),
     (sym_begin_path_expression, 2943), (sym_invocation, 2934), (sym_any_invocation, 2935),
     (sym_this_invocation, 2641), (sym_super_invocation, 2641), (sym_super_body_invocation, 2935),
     (sym_path_expression, 2627), (sym_field_expression, 2373), (sym_index_expression, 2373),
     (sym_ladder_diagram, 8165), (sym_fb_diagram, 8165), (aux_sym_func_decl_repeat1, 7194),
     (aux_sym_method_decl_repeat1, 1024), (aux_sym_stmt_list_repeat1, 2024),
     (aux_sym_ladder_diagram_repeat1, 7628), (aux_sym_fb_diagram_repeat1, 7633),
     (sym_identifier, 298), (anon_sym_COLON, 2282),
     (aux_sym_ERR_unexpected_this_in_path_token1, 304),
     (aux_sym_ERR_unexpected_super_in_path_token1, 306), (sym_line_comment, 3),
     (anon_sym_LBRACE, 308), (aux_sym_test_pragma_token1, 9), (aux_sym_once_pragma_token1, 11),
     (aux_sym_must_call_pragma_token1, 13), (aux_sym_export_pragma_token1, 15),
     (anon_sym_SEMI, 310), (anon_sym_PERCENT, 312), (aux_sym_input_decls_token1, 2094),
     (aux_sym_output_decls_token1, 2096), (aux_sym_in_out_decls_token1, 318),
     (aux_sym_var_decls_token1, 2098), (aux_sym_temp_var_decls_token1, 322),
     (aux_sym_external_var_decls_token1, 324), (aux_sym_global_var_decls_token1, 326),
     (aux_sym_method_decl_token1, 330), (aux_sym_method_decl_token3, 2284),
     (aux_sym_prog_access_decls_token1, 332), (aux_sym_config_init_token1, 336),
     (aux_sym__stmt_token1, 340), (aux_sym__stmt_token2, 340), (aux_sym__stmt_token3, 340),
     (aux_sym_if_stmt_token1, 342), (aux_sym_case_stmt_token1, 344), (aux_sym_for_stmt_token1, 346),
     (aux_sym_while_stmt_token1, 348), (aux_sym_repeat_stmt_token1, 350),
     (aux_sym_raise_stmt_token1, 352), (aux_sym_try_stmt_token1, 354),
     (aux_sym_try_stmt_token2, 356), (aux_sym_catch_clause_token1, 356),
     (aux_sym_finally_clause_token1, 356), (sym_ld_rung, 2102), (sym_fbd_network, 2104),
     (sym_c_style_comment, 3), (sym_pascal_style_comment, 3), (sym_pragma, 3)]"

lemma ts_parse_row_930_scan: "row_scan tokens_63_2 0 ts_parse_row_930 = Some (Suc (Suc (Suc (Suc 0))))"
  unfolding ts_parse_row_930_def by simp

text \<open>Lines 160052 to 160156.\<close>

definition ts_parse_row_931 :: parse_row where
  "ts_parse_row_931 =
    [(sym_ERR_assign_func_call, 7530), (sym_ERR_unexpected_this_in_path, 2372),
     (sym_ERR_unexpected_super_in_path, 2372), (sym_ERR_var_access_not_allowed, 3196),
     (sym_ERR_var_config_not_allowed, 3196), (sym_ERR_var_external_not_allowed, 3196),
     (sym_ERR_var_global_not_allowed, 3196), (sym_ERR_method_decl_in_body, 3150),
     (sym_extern_pragma, 7490), (sym_wasm_pragma, 3150), (sym_warn_pragma, 7490),
     (sym_allow_pragma, 3140), (sym_test_pragma, 7490), (sym_once_pragma, 7490),
     (sym_must_call_pragma, 7490), (sym_export_pragma, 7490), (sym_pou_pragma, 7194),
     (sym_direct_variable, 7675), (sym_deref_expression, 2373), (sym_variable, 7599),
     (sym_var_access, 2373), (sym_input_decls, 3196), (sym_output_decls, 3196),
     (sym_in_out_decls, 3196), (sym_var_decls, 3196), (sym_temp_var_decls, 3196),
     (sym_external_var_decls, 3197), (sym_global_var_decls, 2947), (sym_func_body, 10296),
     (sym_method_decl, 3159), (sym__method_decl_variables, 1037), (sym_prog_access_decls, 3043),
     (sym_config_init, 3047), (sym_variable_access, 7530), (sym_func_call, 2961),
     (sym_stmt_list, 8165), (sym__stmt, 2024), (sym_assign, 3150), (sym_if_stmt, 3150),
     (sym_case_stmt, 3150), (sym_for_stmt, 3150), (sym_while_stmt, 3150), (sym_repeat_stmt, 3150),
     (sym_raise_stmt, 3150), (sym_try_stmt, 3150), (sym_ERR_clause_outside_try, 3150),
     (sym_begin_path_expression, 2943), (sym_invocation, 2934), (sym_any_invocation, 2935),
     (sym_this_invocation, 2641), (sym_super_invocation, 2641), (sym_super_body_invocation, 2935),
     (sym_path_expression, 2627), (sym_field_expression, 2373), (sym_index_expression, 2373),
     (sym_ladder_diagram, 8165), (sym_fb_diagram, 8165), (aux_sym_func_decl_repeat1, 7194),
     (aux_sym_method_decl_repeat1, 1037), (aux_sym_stmt_list_repeat1, 2024),
     (aux_sym_ladder_diagram_repeat1, 7628), (aux_sym_fb_diagram_repeat1, 7633),
     (sym_identifier, 298), (anon_sym_COLON, 2286),
     (aux_sym_ERR_unexpected_this_in_path_token1, 304),
     (aux_sym_ERR_unexpected_super_in_path_token1, 306), (sym_line_comment, 3),
     (anon_sym_LBRACE, 308), (aux_sym_test_pragma_token1, 9), (aux_sym_once_pragma_token1, 11),
     (aux_sym_must_call_pragma_token1, 13), (aux_sym_export_pragma_token1, 15),
     (anon_sym_SEMI, 310), (anon_sym_PERCENT, 312), (aux_sym_input_decls_token1, 2094),
     (aux_sym_output_decls_token1, 2096), (aux_sym_in_out_decls_token1, 318),
     (aux_sym_var_decls_token1, 2098), (aux_sym_temp_var_decls_token1, 322),
     (aux_sym_external_var_decls_token1, 324), (aux_sym_global_var_decls_token1, 326),
     (aux_sym_method_decl_token1, 330), (aux_sym_method_decl_token3, 2288),
     (aux_sym_prog_access_decls_token1, 332), (aux_sym_config_init_token1, 336),
     (aux_sym__stmt_token1, 340), (aux_sym__stmt_token2, 340), (aux_sym__stmt_token3, 340),
     (aux_sym_if_stmt_token1, 342), (aux_sym_case_stmt_token1, 344), (aux_sym_for_stmt_token1, 346),
     (aux_sym_while_stmt_token1, 348), (aux_sym_repeat_stmt_token1, 350),
     (aux_sym_raise_stmt_token1, 352), (aux_sym_try_stmt_token1, 354),
     (aux_sym_try_stmt_token2, 356), (aux_sym_catch_clause_token1, 356),
     (aux_sym_finally_clause_token1, 356), (sym_ld_rung, 2102), (sym_fbd_network, 2104),
     (sym_c_style_comment, 3), (sym_pascal_style_comment, 3), (sym_pragma, 3)]"

lemma ts_parse_row_931_scan: "row_scan tokens_63_2 0 ts_parse_row_931 = Some (Suc (Suc (Suc (Suc 0))))"
  unfolding ts_parse_row_931_def by simp

text \<open>Lines 160157 to 160261.\<close>

definition ts_parse_row_932 :: parse_row where
  "ts_parse_row_932 =
    [(sym_ERR_assign_func_call, 7530), (sym_ERR_unexpected_this_in_path, 2372),
     (sym_ERR_unexpected_super_in_path, 2372), (sym_ERR_var_access_not_allowed, 3196),
     (sym_ERR_var_config_not_allowed, 3196), (sym_ERR_var_external_not_allowed, 3196),
     (sym_ERR_var_global_not_allowed, 3196), (sym_ERR_method_decl_in_body, 3150),
     (sym_extern_pragma, 7490), (sym_wasm_pragma, 3150), (sym_warn_pragma, 7490),
     (sym_allow_pragma, 3140), (sym_test_pragma, 7490), (sym_once_pragma, 7490),
     (sym_must_call_pragma, 7490), (sym_export_pragma, 7490), (sym_pou_pragma, 7194),
     (sym_direct_variable, 7675), (sym_deref_expression, 2373), (sym_variable, 7599),
     (sym_var_access, 2373), (sym_input_decls, 3196), (sym_output_decls, 3196),
     (sym_in_out_decls, 3196), (sym_var_decls, 3196), (sym_temp_var_decls, 3196),
     (sym_external_var_decls, 3197), (sym_global_var_decls, 2947), (sym_func_body, 10310),
     (sym_method_decl, 3159), (sym__method_decl_variables, 1041), (sym_prog_access_decls, 3043),
     (sym_config_init, 3047), (sym_variable_access, 7530), (sym_func_call, 2961),
     (sym_stmt_list, 8165), (sym__stmt, 2024), (sym_assign, 3150), (sym_if_stmt, 3150),
     (sym_case_stmt, 3150), (sym_for_stmt, 3150), (sym_while_stmt, 3150), (sym_repeat_stmt, 3150),
     (sym_raise_stmt, 3150), (sym_try_stmt, 3150), (sym_ERR_clause_outside_try, 3150),
     (sym_begin_path_expression, 2943), (sym_invocation, 2934), (sym_any_invocation, 2935),
     (sym_this_invocation, 2641), (sym_super_invocation, 2641), (sym_super_body_invocation, 2935),
     (sym_path_expression, 2627), (sym_field_expression, 2373), (sym_index_expression, 2373),
     (sym_ladder_diagram, 8165), (sym_fb_diagram, 8165), (aux_sym_func_decl_repeat1, 7194),
     (aux_sym_method_decl_repeat1, 1041), (aux_sym_stmt_list_repeat1, 2024),
     (aux_sym_ladder_diagram_repeat1, 7628), (aux_sym_fb_diagram_repeat1, 7633),
     (sym_identifier, 298), (anon_sym_COLON, 2290),
     (aux_sym_ERR_unexpected_this_in_path_token1, 304),
     (aux_sym_ERR_unexpected_super_in_path_token1, 306), (sym_line_comment, 3),
     (anon_sym_LBRACE, 308), (aux_sym_test_pragma_token1, 9), (aux_sym_once_pragma_token1, 11),
     (aux_sym_must_call_pragma_token1, 13), (aux_sym_export_pragma_token1, 15),
     (anon_sym_SEMI, 310), (anon_sym_PERCENT, 312), (aux_sym_input_decls_token1, 2094),
     (aux_sym_output_decls_token1, 2096), (aux_sym_in_out_decls_token1, 318),
     (aux_sym_var_decls_token1, 2098), (aux_sym_temp_var_decls_token1, 322),
     (aux_sym_external_var_decls_token1, 324), (aux_sym_global_var_decls_token1, 326),
     (aux_sym_method_decl_token1, 330), (aux_sym_method_decl_token3, 2292),
     (aux_sym_prog_access_decls_token1, 332), (aux_sym_config_init_token1, 336),
     (aux_sym__stmt_token1, 340), (aux_sym__stmt_token2, 340), (aux_sym__stmt_token3, 340),
     (aux_sym_if_stmt_token1, 342), (aux_sym_case_stmt_token1, 344), (aux_sym_for_stmt_token1, 346),
     (aux_sym_while_stmt_token1, 348), (aux_sym_repeat_stmt_token1, 350),
     (aux_sym_raise_stmt_token1, 352), (aux_sym_try_stmt_token1, 354),
     (aux_sym_try_stmt_token2, 356), (aux_sym_catch_clause_token1, 356),
     (aux_sym_finally_clause_token1, 356), (sym_ld_rung, 2102), (sym_fbd_network, 2104),
     (sym_c_style_comment, 3), (sym_pascal_style_comment, 3), (sym_pragma, 3)]"

lemma ts_parse_row_932_scan: "row_scan tokens_63_2 0 ts_parse_row_932 = Some (Suc (Suc (Suc (Suc 0))))"
  unfolding ts_parse_row_932_def by simp

text \<open>Lines 160262 to 160366.\<close>

definition ts_parse_row_933 :: parse_row where
  "ts_parse_row_933 =
    [(sym_ERR_assign_func_call, 7530), (sym_ERR_unexpected_this_in_path, 2372),
     (sym_ERR_unexpected_super_in_path, 2372), (sym_ERR_var_access_not_allowed, 3196),
     (sym_ERR_var_config_not_allowed, 3196), (sym_ERR_var_external_not_allowed, 3196),
     (sym_ERR_var_global_not_allowed, 3196), (sym_ERR_method_decl_in_body, 3150),
     (sym_extern_pragma, 7490), (sym_wasm_pragma, 3150), (sym_warn_pragma, 7490),
     (sym_allow_pragma, 3140), (sym_test_pragma, 7490), (sym_once_pragma, 7490),
     (sym_must_call_pragma, 7490), (sym_export_pragma, 7490), (sym_pou_pragma, 7194),
     (sym_direct_variable, 7675), (sym_deref_expression, 2373), (sym_variable, 7599),
     (sym_var_access, 2373), (sym_input_decls, 3196), (sym_output_decls, 3196),
     (sym_in_out_decls, 3196), (sym_var_decls, 3196), (sym_temp_var_decls, 3196),
     (sym_external_var_decls, 3197), (sym_global_var_decls, 2947), (sym_func_body, 10312),
     (sym_method_decl, 3159), (sym__method_decl_variables, 1042), (sym_prog_access_decls, 3043),
     (sym_config_init, 3047), (sym_variable_access, 7530), (sym_func_call, 2961),
     (sym_stmt_list, 8165), (sym__stmt, 2024), (sym_assign, 3150), (sym_if_stmt, 3150),
     (sym_case_stmt, 3150), (sym_for_stmt, 3150), (sym_while_stmt, 3150), (sym_repeat_stmt, 3150),
     (sym_raise_stmt, 3150), (sym_try_stmt, 3150), (sym_ERR_clause_outside_try, 3150),
     (sym_begin_path_expression, 2943), (sym_invocation, 2934), (sym_any_invocation, 2935),
     (sym_this_invocation, 2641), (sym_super_invocation, 2641), (sym_super_body_invocation, 2935),
     (sym_path_expression, 2627), (sym_field_expression, 2373), (sym_index_expression, 2373),
     (sym_ladder_diagram, 8165), (sym_fb_diagram, 8165), (aux_sym_func_decl_repeat1, 7194),
     (aux_sym_method_decl_repeat1, 1042), (aux_sym_stmt_list_repeat1, 2024),
     (aux_sym_ladder_diagram_repeat1, 7628), (aux_sym_fb_diagram_repeat1, 7633),
     (sym_identifier, 298), (anon_sym_COLON, 2294),
     (aux_sym_ERR_unexpected_this_in_path_token1, 304),
     (aux_sym_ERR_unexpected_super_in_path_token1, 306), (sym_line_comment, 3),
     (anon_sym_LBRACE, 308), (aux_sym_test_pragma_token1, 9), (aux_sym_once_pragma_token1, 11),
     (aux_sym_must_call_pragma_token1, 13), (aux_sym_export_pragma_token1, 15),
     (anon_sym_SEMI, 310), (anon_sym_PERCENT, 312), (aux_sym_input_decls_token1, 2094),
     (aux_sym_output_decls_token1, 2096), (aux_sym_in_out_decls_token1, 318),
     (aux_sym_var_decls_token1, 2098), (aux_sym_temp_var_decls_token1, 322),
     (aux_sym_external_var_decls_token1, 324), (aux_sym_global_var_decls_token1, 326),
     (aux_sym_method_decl_token1, 330), (aux_sym_method_decl_token3, 2296),
     (aux_sym_prog_access_decls_token1, 332), (aux_sym_config_init_token1, 336),
     (aux_sym__stmt_token1, 340), (aux_sym__stmt_token2, 340), (aux_sym__stmt_token3, 340),
     (aux_sym_if_stmt_token1, 342), (aux_sym_case_stmt_token1, 344), (aux_sym_for_stmt_token1, 346),
     (aux_sym_while_stmt_token1, 348), (aux_sym_repeat_stmt_token1, 350),
     (aux_sym_raise_stmt_token1, 352), (aux_sym_try_stmt_token1, 354),
     (aux_sym_try_stmt_token2, 356), (aux_sym_catch_clause_token1, 356),
     (aux_sym_finally_clause_token1, 356), (sym_ld_rung, 2102), (sym_fbd_network, 2104),
     (sym_c_style_comment, 3), (sym_pascal_style_comment, 3), (sym_pragma, 3)]"

lemma ts_parse_row_933_scan: "row_scan tokens_63_2 0 ts_parse_row_933 = Some (Suc (Suc (Suc (Suc 0))))"
  unfolding ts_parse_row_933_def by simp

text \<open>Lines 160367 to 160471.\<close>

definition ts_parse_row_934 :: parse_row where
  "ts_parse_row_934 =
    [(sym_ERR_assign_func_call, 7530), (sym_ERR_unexpected_this_in_path, 2372),
     (sym_ERR_unexpected_super_in_path, 2372), (sym_ERR_var_access_not_allowed, 3196),
     (sym_ERR_var_config_not_allowed, 3196), (sym_ERR_var_external_not_allowed, 3196),
     (sym_ERR_var_global_not_allowed, 3196), (sym_ERR_method_decl_in_body, 3150),
     (sym_extern_pragma, 7490), (sym_wasm_pragma, 3150), (sym_warn_pragma, 7490),
     (sym_allow_pragma, 3140), (sym_test_pragma, 7490), (sym_once_pragma, 7490),
     (sym_must_call_pragma, 7490), (sym_export_pragma, 7490), (sym_pou_pragma, 7194),
     (sym_direct_variable, 7675), (sym_deref_expression, 2373), (sym_variable, 7599),
     (sym_var_access, 2373), (sym_input_decls, 3196), (sym_output_decls, 3196),
     (sym_in_out_decls, 3196), (sym_var_decls, 3196), (sym_temp_var_decls, 3196),
     (sym_external_var_decls, 3197), (sym_global_var_decls, 2947), (sym_func_body, 10318),
     (sym_method_decl, 3159), (sym__method_decl_variables, 1046), (sym_prog_access_decls, 3043),
     (sym_config_init, 3047), (sym_variable_access, 7530), (sym_func_call, 2961),
     (sym_stmt_list, 8165), (sym__stmt, 2024), (sym_assign, 3150), (sym_if_stmt, 3150),
     (sym_case_stmt, 3150), (sym_for_stmt, 3150), (sym_while_stmt, 3150), (sym_repeat_stmt, 3150),
     (sym_raise_stmt, 3150), (sym_try_stmt, 3150), (sym_ERR_clause_outside_try, 3150),
     (sym_begin_path_expression, 2943), (sym_invocation, 2934), (sym_any_invocation, 2935),
     (sym_this_invocation, 2641), (sym_super_invocation, 2641), (sym_super_body_invocation, 2935),
     (sym_path_expression, 2627), (sym_field_expression, 2373), (sym_index_expression, 2373),
     (sym_ladder_diagram, 8165), (sym_fb_diagram, 8165), (aux_sym_func_decl_repeat1, 7194),
     (aux_sym_method_decl_repeat1, 1046), (aux_sym_stmt_list_repeat1, 2024),
     (aux_sym_ladder_diagram_repeat1, 7628), (aux_sym_fb_diagram_repeat1, 7633),
     (sym_identifier, 298), (anon_sym_COLON, 2298),
     (aux_sym_ERR_unexpected_this_in_path_token1, 304),
     (aux_sym_ERR_unexpected_super_in_path_token1, 306), (sym_line_comment, 3),
     (anon_sym_LBRACE, 308), (aux_sym_test_pragma_token1, 9), (aux_sym_once_pragma_token1, 11),
     (aux_sym_must_call_pragma_token1, 13), (aux_sym_export_pragma_token1, 15),
     (anon_sym_SEMI, 310), (anon_sym_PERCENT, 312), (aux_sym_input_decls_token1, 2094),
     (aux_sym_output_decls_token1, 2096), (aux_sym_in_out_decls_token1, 318),
     (aux_sym_var_decls_token1, 2098), (aux_sym_temp_var_decls_token1, 322),
     (aux_sym_external_var_decls_token1, 324), (aux_sym_global_var_decls_token1, 326),
     (aux_sym_method_decl_token1, 330), (aux_sym_method_decl_token3, 2300),
     (aux_sym_prog_access_decls_token1, 332), (aux_sym_config_init_token1, 336),
     (aux_sym__stmt_token1, 340), (aux_sym__stmt_token2, 340), (aux_sym__stmt_token3, 340),
     (aux_sym_if_stmt_token1, 342), (aux_sym_case_stmt_token1, 344), (aux_sym_for_stmt_token1, 346),
     (aux_sym_while_stmt_token1, 348), (aux_sym_repeat_stmt_token1, 350),
     (aux_sym_raise_stmt_token1, 352), (aux_sym_try_stmt_token1, 354),
     (aux_sym_try_stmt_token2, 356), (aux_sym_catch_clause_token1, 356),
     (aux_sym_finally_clause_token1, 356), (sym_ld_rung, 2102), (sym_fbd_network, 2104),
     (sym_c_style_comment, 3), (sym_pascal_style_comment, 3), (sym_pragma, 3)]"

lemma ts_parse_row_934_scan: "row_scan tokens_63_2 0 ts_parse_row_934 = Some (Suc (Suc (Suc (Suc 0))))"
  unfolding ts_parse_row_934_def by simp

text \<open>Lines 160472 to 160576.\<close>

definition ts_parse_row_935 :: parse_row where
  "ts_parse_row_935 =
    [(sym_ERR_assign_func_call, 7530), (sym_ERR_unexpected_this_in_path, 2372),
     (sym_ERR_unexpected_super_in_path, 2372), (sym_ERR_var_access_not_allowed, 3196),
     (sym_ERR_var_config_not_allowed, 3196), (sym_ERR_var_external_not_allowed, 3196),
     (sym_ERR_var_global_not_allowed, 3196), (sym_ERR_method_decl_in_body, 3150),
     (sym_extern_pragma, 7490), (sym_wasm_pragma, 3150), (sym_warn_pragma, 7490),
     (sym_allow_pragma, 3140), (sym_test_pragma, 7490), (sym_once_pragma, 7490),
     (sym_must_call_pragma, 7490), (sym_export_pragma, 7490), (sym_pou_pragma, 7194),
     (sym_direct_variable, 7675), (sym_deref_expression, 2373), (sym_variable, 7599),
     (sym_var_access, 2373), (sym_input_decls, 3196), (sym_output_decls, 3196),
     (sym_in_out_decls, 3196), (sym_var_decls, 3196), (sym_temp_var_decls, 3196),
     (sym_external_var_decls, 3197), (sym_global_var_decls, 2947), (sym_func_body, 10324),
     (sym_method_decl, 3159), (sym__method_decl_variables, 1049), (sym_prog_access_decls, 3043),
     (sym_config_init, 3047), (sym_variable_access, 7530), (sym_func_call, 2961),
     (sym_stmt_list, 8165), (sym__stmt, 2024), (sym_assign, 3150), (sym_if_stmt, 3150),
     (sym_case_stmt, 3150), (sym_for_stmt, 3150), (sym_while_stmt, 3150), (sym_repeat_stmt, 3150),
     (sym_raise_stmt, 3150), (sym_try_stmt, 3150), (sym_ERR_clause_outside_try, 3150),
     (sym_begin_path_expression, 2943), (sym_invocation, 2934), (sym_any_invocation, 2935),
     (sym_this_invocation, 2641), (sym_super_invocation, 2641), (sym_super_body_invocation, 2935),
     (sym_path_expression, 2627), (sym_field_expression, 2373), (sym_index_expression, 2373),
     (sym_ladder_diagram, 8165), (sym_fb_diagram, 8165), (aux_sym_func_decl_repeat1, 7194),
     (aux_sym_method_decl_repeat1, 1049), (aux_sym_stmt_list_repeat1, 2024),
     (aux_sym_ladder_diagram_repeat1, 7628), (aux_sym_fb_diagram_repeat1, 7633),
     (sym_identifier, 298), (anon_sym_COLON, 2302),
     (aux_sym_ERR_unexpected_this_in_path_token1, 304),
     (aux_sym_ERR_unexpected_super_in_path_token1, 306), (sym_line_comment, 3),
     (anon_sym_LBRACE, 308), (aux_sym_test_pragma_token1, 9), (aux_sym_once_pragma_token1, 11),
     (aux_sym_must_call_pragma_token1, 13), (aux_sym_export_pragma_token1, 15),
     (anon_sym_SEMI, 310), (anon_sym_PERCENT, 312), (aux_sym_input_decls_token1, 2094),
     (aux_sym_output_decls_token1, 2096), (aux_sym_in_out_decls_token1, 318),
     (aux_sym_var_decls_token1, 2098), (aux_sym_temp_var_decls_token1, 322),
     (aux_sym_external_var_decls_token1, 324), (aux_sym_global_var_decls_token1, 326),
     (aux_sym_method_decl_token1, 330), (aux_sym_method_decl_token3, 2304),
     (aux_sym_prog_access_decls_token1, 332), (aux_sym_config_init_token1, 336),
     (aux_sym__stmt_token1, 340), (aux_sym__stmt_token2, 340), (aux_sym__stmt_token3, 340),
     (aux_sym_if_stmt_token1, 342), (aux_sym_case_stmt_token1, 344), (aux_sym_for_stmt_token1, 346),
     (aux_sym_while_stmt_token1, 348), (aux_sym_repeat_stmt_token1, 350),
     (aux_sym_raise_stmt_token1, 352), (aux_sym_try_stmt_token1, 354),
     (aux_sym_try_stmt_token2, 356), (aux_sym_catch_clause_token1, 356),
     (aux_sym_finally_clause_token1, 356), (sym_ld_rung, 2102), (sym_fbd_network, 2104),
     (sym_c_style_comment, 3), (sym_pascal_style_comment, 3), (sym_pragma, 3)]"

lemma ts_parse_row_935_scan: "row_scan tokens_63_2 0 ts_parse_row_935 = Some (Suc (Suc (Suc (Suc 0))))"
  unfolding ts_parse_row_935_def by simp

text \<open>Lines 160577 to 160681.\<close>

definition ts_parse_row_936 :: parse_row where
  "ts_parse_row_936 =
    [(sym_ERR_assign_func_call, 7530), (sym_ERR_unexpected_this_in_path, 2372),
     (sym_ERR_unexpected_super_in_path, 2372), (sym_ERR_var_access_not_allowed, 3196),
     (sym_ERR_var_config_not_allowed, 3196), (sym_ERR_var_external_not_allowed, 3196),
     (sym_ERR_var_global_not_allowed, 3196), (sym_ERR_method_decl_in_body, 3150),
     (sym_extern_pragma, 7490), (sym_wasm_pragma, 3150), (sym_warn_pragma, 7490),
     (sym_allow_pragma, 3140), (sym_test_pragma, 7490), (sym_once_pragma, 7490),
     (sym_must_call_pragma, 7490), (sym_export_pragma, 7490), (sym_pou_pragma, 7194),
     (sym_direct_variable, 7675), (sym_deref_expression, 2373), (sym_variable, 7599),
     (sym_var_access, 2373), (sym_input_decls, 3196), (sym_output_decls, 3196),
     (sym_in_out_decls, 3196), (sym_var_decls, 3196), (sym_temp_var_decls, 3196),
     (sym_external_var_decls, 3197), (sym_global_var_decls, 2947), (sym_func_body, 10329),
     (sym_method_decl, 3159), (sym__method_decl_variables, 1051), (sym_prog_access_decls, 3043),
     (sym_config_init, 3047), (sym_variable_access, 7530), (sym_func_call, 2961),
     (sym_stmt_list, 8165), (sym__stmt, 2024), (sym_assign, 3150), (sym_if_stmt, 3150),
     (sym_case_stmt, 3150), (sym_for_stmt, 3150), (sym_while_stmt, 3150), (sym_repeat_stmt, 3150),
     (sym_raise_stmt, 3150), (sym_try_stmt, 3150), (sym_ERR_clause_outside_try, 3150),
     (sym_begin_path_expression, 2943), (sym_invocation, 2934), (sym_any_invocation, 2935),
     (sym_this_invocation, 2641), (sym_super_invocation, 2641), (sym_super_body_invocation, 2935),
     (sym_path_expression, 2627), (sym_field_expression, 2373), (sym_index_expression, 2373),
     (sym_ladder_diagram, 8165), (sym_fb_diagram, 8165), (aux_sym_func_decl_repeat1, 7194),
     (aux_sym_method_decl_repeat1, 1051), (aux_sym_stmt_list_repeat1, 2024),
     (aux_sym_ladder_diagram_repeat1, 7628), (aux_sym_fb_diagram_repeat1, 7633),
     (sym_identifier, 298), (anon_sym_COLON, 2306),
     (aux_sym_ERR_unexpected_this_in_path_token1, 304),
     (aux_sym_ERR_unexpected_super_in_path_token1, 306), (sym_line_comment, 3),
     (anon_sym_LBRACE, 308), (aux_sym_test_pragma_token1, 9), (aux_sym_once_pragma_token1, 11),
     (aux_sym_must_call_pragma_token1, 13), (aux_sym_export_pragma_token1, 15),
     (anon_sym_SEMI, 310), (anon_sym_PERCENT, 312), (aux_sym_input_decls_token1, 2094),
     (aux_sym_output_decls_token1, 2096), (aux_sym_in_out_decls_token1, 318),
     (aux_sym_var_decls_token1, 2098), (aux_sym_temp_var_decls_token1, 322),
     (aux_sym_external_var_decls_token1, 324), (aux_sym_global_var_decls_token1, 326),
     (aux_sym_method_decl_token1, 330), (aux_sym_method_decl_token3, 2308),
     (aux_sym_prog_access_decls_token1, 332), (aux_sym_config_init_token1, 336),
     (aux_sym__stmt_token1, 340), (aux_sym__stmt_token2, 340), (aux_sym__stmt_token3, 340),
     (aux_sym_if_stmt_token1, 342), (aux_sym_case_stmt_token1, 344), (aux_sym_for_stmt_token1, 346),
     (aux_sym_while_stmt_token1, 348), (aux_sym_repeat_stmt_token1, 350),
     (aux_sym_raise_stmt_token1, 352), (aux_sym_try_stmt_token1, 354),
     (aux_sym_try_stmt_token2, 356), (aux_sym_catch_clause_token1, 356),
     (aux_sym_finally_clause_token1, 356), (sym_ld_rung, 2102), (sym_fbd_network, 2104),
     (sym_c_style_comment, 3), (sym_pascal_style_comment, 3), (sym_pragma, 3)]"

lemma ts_parse_row_936_scan: "row_scan tokens_63_2 0 ts_parse_row_936 = Some (Suc (Suc (Suc (Suc 0))))"
  unfolding ts_parse_row_936_def by simp

text \<open>Lines 160682 to 160786.\<close>

definition ts_parse_row_937 :: parse_row where
  "ts_parse_row_937 =
    [(sym_ERR_assign_func_call, 7530), (sym_ERR_unexpected_this_in_path, 2372),
     (sym_ERR_unexpected_super_in_path, 2372), (sym_ERR_var_access_not_allowed, 3196),
     (sym_ERR_var_config_not_allowed, 3196), (sym_ERR_var_external_not_allowed, 3196),
     (sym_ERR_var_global_not_allowed, 3196), (sym_ERR_method_decl_in_body, 3150),
     (sym_extern_pragma, 7490), (sym_wasm_pragma, 3150), (sym_warn_pragma, 7490),
     (sym_allow_pragma, 3140), (sym_test_pragma, 7490), (sym_once_pragma, 7490),
     (sym_must_call_pragma, 7490), (sym_export_pragma, 7490), (sym_pou_pragma, 7194),
     (sym_direct_variable, 7675), (sym_deref_expression, 2373), (sym_variable, 7599),
     (sym_var_access, 2373), (sym_input_decls, 3196), (sym_output_decls, 3196),
     (sym_in_out_decls, 3196), (sym_var_decls, 3196), (sym_temp_var_decls, 3196),
     (sym_external_var_decls, 3197), (sym_global_var_decls, 2947), (sym_func_body, 10338),
     (sym_method_decl, 3159), (sym__method_decl_variables, 1055), (sym_prog_access_decls, 3043),
     (sym_config_init, 3047), (sym_variable_access, 7530), (sym_func_call, 2961),
     (sym_stmt_list, 8165), (sym__stmt, 2024), (sym_assign, 3150), (sym_if_stmt, 3150),
     (sym_case_stmt, 3150), (sym_for_stmt, 3150), (sym_while_stmt, 3150), (sym_repeat_stmt, 3150),
     (sym_raise_stmt, 3150), (sym_try_stmt, 3150), (sym_ERR_clause_outside_try, 3150),
     (sym_begin_path_expression, 2943), (sym_invocation, 2934), (sym_any_invocation, 2935),
     (sym_this_invocation, 2641), (sym_super_invocation, 2641), (sym_super_body_invocation, 2935),
     (sym_path_expression, 2627), (sym_field_expression, 2373), (sym_index_expression, 2373),
     (sym_ladder_diagram, 8165), (sym_fb_diagram, 8165), (aux_sym_func_decl_repeat1, 7194),
     (aux_sym_method_decl_repeat1, 1055), (aux_sym_stmt_list_repeat1, 2024),
     (aux_sym_ladder_diagram_repeat1, 7628), (aux_sym_fb_diagram_repeat1, 7633),
     (sym_identifier, 298), (anon_sym_COLON, 2310),
     (aux_sym_ERR_unexpected_this_in_path_token1, 304),
     (aux_sym_ERR_unexpected_super_in_path_token1, 306), (sym_line_comment, 3),
     (anon_sym_LBRACE, 308), (aux_sym_test_pragma_token1, 9), (aux_sym_once_pragma_token1, 11),
     (aux_sym_must_call_pragma_token1, 13), (aux_sym_export_pragma_token1, 15),
     (anon_sym_SEMI, 310), (anon_sym_PERCENT, 312), (aux_sym_input_decls_token1, 2094),
     (aux_sym_output_decls_token1, 2096), (aux_sym_in_out_decls_token1, 318),
     (aux_sym_var_decls_token1, 2098), (aux_sym_temp_var_decls_token1, 322),
     (aux_sym_external_var_decls_token1, 324), (aux_sym_global_var_decls_token1, 326),
     (aux_sym_method_decl_token1, 330), (aux_sym_method_decl_token3, 2312),
     (aux_sym_prog_access_decls_token1, 332), (aux_sym_config_init_token1, 336),
     (aux_sym__stmt_token1, 340), (aux_sym__stmt_token2, 340), (aux_sym__stmt_token3, 340),
     (aux_sym_if_stmt_token1, 342), (aux_sym_case_stmt_token1, 344), (aux_sym_for_stmt_token1, 346),
     (aux_sym_while_stmt_token1, 348), (aux_sym_repeat_stmt_token1, 350),
     (aux_sym_raise_stmt_token1, 352), (aux_sym_try_stmt_token1, 354),
     (aux_sym_try_stmt_token2, 356), (aux_sym_catch_clause_token1, 356),
     (aux_sym_finally_clause_token1, 356), (sym_ld_rung, 2102), (sym_fbd_network, 2104),
     (sym_c_style_comment, 3), (sym_pascal_style_comment, 3), (sym_pragma, 3)]"

lemma ts_parse_row_937_scan: "row_scan tokens_63_2 0 ts_parse_row_937 = Some (Suc (Suc (Suc (Suc 0))))"
  unfolding ts_parse_row_937_def by simp

text \<open>Lines 160787 to 160891.\<close>

definition ts_parse_row_938 :: parse_row where
  "ts_parse_row_938 =
    [(sym_ERR_assign_func_call, 7530), (sym_ERR_unexpected_this_in_path, 2372),
     (sym_ERR_unexpected_super_in_path, 2372), (sym_ERR_var_access_not_allowed, 3196),
     (sym_ERR_var_config_not_allowed, 3196), (sym_ERR_var_external_not_allowed, 3196),
     (sym_ERR_var_global_not_allowed, 3196), (sym_ERR_method_decl_in_body, 3150),
     (sym_extern_pragma, 7490), (sym_wasm_pragma, 3150), (sym_warn_pragma, 7490),
     (sym_allow_pragma, 3140), (sym_test_pragma, 7490), (sym_once_pragma, 7490),
     (sym_must_call_pragma, 7490), (sym_export_pragma, 7490), (sym_pou_pragma, 7194),
     (sym_direct_variable, 7675), (sym_deref_expression, 2373), (sym_variable, 7599),
     (sym_var_access, 2373), (sym_input_decls, 3196), (sym_output_decls, 3196),
     (sym_in_out_decls, 3196), (sym_var_decls, 3196), (sym_temp_var_decls, 3196),
     (sym_external_var_decls, 3197), (sym_global_var_decls, 2947), (sym_func_body, 10340),
     (sym_method_decl, 3159), (sym__method_decl_variables, 1056), (sym_prog_access_decls, 3043),
     (sym_config_init, 3047), (sym_variable_access, 7530), (sym_func_call, 2961),
     (sym_stmt_list, 8165), (sym__stmt, 2024), (sym_assign, 3150), (sym_if_stmt, 3150),
     (sym_case_stmt, 3150), (sym_for_stmt, 3150), (sym_while_stmt, 3150), (sym_repeat_stmt, 3150),
     (sym_raise_stmt, 3150), (sym_try_stmt, 3150), (sym_ERR_clause_outside_try, 3150),
     (sym_begin_path_expression, 2943), (sym_invocation, 2934), (sym_any_invocation, 2935),
     (sym_this_invocation, 2641), (sym_super_invocation, 2641), (sym_super_body_invocation, 2935),
     (sym_path_expression, 2627), (sym_field_expression, 2373), (sym_index_expression, 2373),
     (sym_ladder_diagram, 8165), (sym_fb_diagram, 8165), (aux_sym_func_decl_repeat1, 7194),
     (aux_sym_method_decl_repeat1, 1056), (aux_sym_stmt_list_repeat1, 2024),
     (aux_sym_ladder_diagram_repeat1, 7628), (aux_sym_fb_diagram_repeat1, 7633),
     (sym_identifier, 298), (anon_sym_COLON, 2314),
     (aux_sym_ERR_unexpected_this_in_path_token1, 304),
     (aux_sym_ERR_unexpected_super_in_path_token1, 306), (sym_line_comment, 3),
     (anon_sym_LBRACE, 308), (aux_sym_test_pragma_token1, 9), (aux_sym_once_pragma_token1, 11),
     (aux_sym_must_call_pragma_token1, 13), (aux_sym_export_pragma_token1, 15),
     (anon_sym_SEMI, 310), (anon_sym_PERCENT, 312), (aux_sym_input_decls_token1, 2094),
     (aux_sym_output_decls_token1, 2096), (aux_sym_in_out_decls_token1, 318),
     (aux_sym_var_decls_token1, 2098), (aux_sym_temp_var_decls_token1, 322),
     (aux_sym_external_var_decls_token1, 324), (aux_sym_global_var_decls_token1, 326),
     (aux_sym_method_decl_token1, 330), (aux_sym_method_decl_token3, 2316),
     (aux_sym_prog_access_decls_token1, 332), (aux_sym_config_init_token1, 336),
     (aux_sym__stmt_token1, 340), (aux_sym__stmt_token2, 340), (aux_sym__stmt_token3, 340),
     (aux_sym_if_stmt_token1, 342), (aux_sym_case_stmt_token1, 344), (aux_sym_for_stmt_token1, 346),
     (aux_sym_while_stmt_token1, 348), (aux_sym_repeat_stmt_token1, 350),
     (aux_sym_raise_stmt_token1, 352), (aux_sym_try_stmt_token1, 354),
     (aux_sym_try_stmt_token2, 356), (aux_sym_catch_clause_token1, 356),
     (aux_sym_finally_clause_token1, 356), (sym_ld_rung, 2102), (sym_fbd_network, 2104),
     (sym_c_style_comment, 3), (sym_pascal_style_comment, 3), (sym_pragma, 3)]"

lemma ts_parse_row_938_scan: "row_scan tokens_63_2 0 ts_parse_row_938 = Some (Suc (Suc (Suc (Suc 0))))"
  unfolding ts_parse_row_938_def by simp

text \<open>Lines 160892 to 160996.\<close>

definition ts_parse_row_939 :: parse_row where
  "ts_parse_row_939 =
    [(sym_ERR_assign_func_call, 7530), (sym_ERR_unexpected_this_in_path, 2372),
     (sym_ERR_unexpected_super_in_path, 2372), (sym_ERR_var_access_not_allowed, 3196),
     (sym_ERR_var_config_not_allowed, 3196), (sym_ERR_var_external_not_allowed, 3196),
     (sym_ERR_var_global_not_allowed, 3196), (sym_ERR_method_decl_in_body, 3150),
     (sym_extern_pragma, 7490), (sym_wasm_pragma, 3150), (sym_warn_pragma, 7490),
     (sym_allow_pragma, 3140), (sym_test_pragma, 7490), (sym_once_pragma, 7490),
     (sym_must_call_pragma, 7490), (sym_export_pragma, 7490), (sym_pou_pragma, 7194),
     (sym_direct_variable, 7675), (sym_deref_expression, 2373), (sym_variable, 7599),
     (sym_var_access, 2373), (sym_input_decls, 3196), (sym_output_decls, 3196),
     (sym_in_out_decls, 3196), (sym_var_decls, 3196), (sym_temp_var_decls, 3196),
     (sym_external_var_decls, 3197), (sym_global_var_decls, 2947), (sym_func_body, 10345),
     (sym_method_decl, 3159), (sym__method_decl_variables, 1058), (sym_prog_access_decls, 3043),
     (sym_config_init, 3047), (sym_variable_access, 7530), (sym_func_call, 2961),
     (sym_stmt_list, 8165), (sym__stmt, 2024), (sym_assign, 3150), (sym_if_stmt, 3150),
     (sym_case_stmt, 3150), (sym_for_stmt, 3150), (sym_while_stmt, 3150), (sym_repeat_stmt, 3150),
     (sym_raise_stmt, 3150), (sym_try_stmt, 3150), (sym_ERR_clause_outside_try, 3150),
     (sym_begin_path_expression, 2943), (sym_invocation, 2934), (sym_any_invocation, 2935),
     (sym_this_invocation, 2641), (sym_super_invocation, 2641), (sym_super_body_invocation, 2935),
     (sym_path_expression, 2627), (sym_field_expression, 2373), (sym_index_expression, 2373),
     (sym_ladder_diagram, 8165), (sym_fb_diagram, 8165), (aux_sym_func_decl_repeat1, 7194),
     (aux_sym_method_decl_repeat1, 1058), (aux_sym_stmt_list_repeat1, 2024),
     (aux_sym_ladder_diagram_repeat1, 7628), (aux_sym_fb_diagram_repeat1, 7633),
     (sym_identifier, 298), (anon_sym_COLON, 2318),
     (aux_sym_ERR_unexpected_this_in_path_token1, 304),
     (aux_sym_ERR_unexpected_super_in_path_token1, 306), (sym_line_comment, 3),
     (anon_sym_LBRACE, 308), (aux_sym_test_pragma_token1, 9), (aux_sym_once_pragma_token1, 11),
     (aux_sym_must_call_pragma_token1, 13), (aux_sym_export_pragma_token1, 15),
     (anon_sym_SEMI, 310), (anon_sym_PERCENT, 312), (aux_sym_input_decls_token1, 2094),
     (aux_sym_output_decls_token1, 2096), (aux_sym_in_out_decls_token1, 318),
     (aux_sym_var_decls_token1, 2098), (aux_sym_temp_var_decls_token1, 322),
     (aux_sym_external_var_decls_token1, 324), (aux_sym_global_var_decls_token1, 326),
     (aux_sym_method_decl_token1, 330), (aux_sym_method_decl_token3, 2320),
     (aux_sym_prog_access_decls_token1, 332), (aux_sym_config_init_token1, 336),
     (aux_sym__stmt_token1, 340), (aux_sym__stmt_token2, 340), (aux_sym__stmt_token3, 340),
     (aux_sym_if_stmt_token1, 342), (aux_sym_case_stmt_token1, 344), (aux_sym_for_stmt_token1, 346),
     (aux_sym_while_stmt_token1, 348), (aux_sym_repeat_stmt_token1, 350),
     (aux_sym_raise_stmt_token1, 352), (aux_sym_try_stmt_token1, 354),
     (aux_sym_try_stmt_token2, 356), (aux_sym_catch_clause_token1, 356),
     (aux_sym_finally_clause_token1, 356), (sym_ld_rung, 2102), (sym_fbd_network, 2104),
     (sym_c_style_comment, 3), (sym_pascal_style_comment, 3), (sym_pragma, 3)]"

lemma ts_parse_row_939_scan: "row_scan tokens_63_2 0 ts_parse_row_939 = Some (Suc (Suc (Suc (Suc 0))))"
  unfolding ts_parse_row_939_def by simp

text \<open>Lines 160997 to 161101.\<close>

definition ts_parse_row_940 :: parse_row where
  "ts_parse_row_940 =
    [(sym_ERR_assign_func_call, 7530), (sym_ERR_unexpected_this_in_path, 2372),
     (sym_ERR_unexpected_super_in_path, 2372), (sym_ERR_var_access_not_allowed, 3196),
     (sym_ERR_var_config_not_allowed, 3196), (sym_ERR_var_external_not_allowed, 3196),
     (sym_ERR_var_global_not_allowed, 3196), (sym_ERR_method_decl_in_body, 3150),
     (sym_extern_pragma, 7490), (sym_wasm_pragma, 3150), (sym_warn_pragma, 7490),
     (sym_allow_pragma, 3140), (sym_test_pragma, 7490), (sym_once_pragma, 7490),
     (sym_must_call_pragma, 7490), (sym_export_pragma, 7490), (sym_pou_pragma, 7194),
     (sym_direct_variable, 7675), (sym_deref_expression, 2373), (sym_variable, 7599),
     (sym_var_access, 2373), (sym_input_decls, 3196), (sym_output_decls, 3196),
     (sym_in_out_decls, 3196), (sym_var_decls, 3196), (sym_temp_var_decls, 3196),
     (sym_external_var_decls, 3197), (sym_global_var_decls, 2947), (sym_func_body, 10347),
     (sym_method_decl, 3159), (sym__method_decl_variables, 1059), (sym_prog_access_decls, 3043),
     (sym_config_init, 3047), (sym_variable_access, 7530), (sym_func_call, 2961),
     (sym_stmt_list, 8165), (sym__stmt, 2024), (sym_assign, 3150), (sym_if_stmt, 3150),
     (sym_case_stmt, 3150), (sym_for_stmt, 3150), (sym_while_stmt, 3150), (sym_repeat_stmt, 3150),
     (sym_raise_stmt, 3150), (sym_try_stmt, 3150), (sym_ERR_clause_outside_try, 3150),
     (sym_begin_path_expression, 2943), (sym_invocation, 2934), (sym_any_invocation, 2935),
     (sym_this_invocation, 2641), (sym_super_invocation, 2641), (sym_super_body_invocation, 2935),
     (sym_path_expression, 2627), (sym_field_expression, 2373), (sym_index_expression, 2373),
     (sym_ladder_diagram, 8165), (sym_fb_diagram, 8165), (aux_sym_func_decl_repeat1, 7194),
     (aux_sym_method_decl_repeat1, 1059), (aux_sym_stmt_list_repeat1, 2024),
     (aux_sym_ladder_diagram_repeat1, 7628), (aux_sym_fb_diagram_repeat1, 7633),
     (sym_identifier, 298), (anon_sym_COLON, 2322),
     (aux_sym_ERR_unexpected_this_in_path_token1, 304),
     (aux_sym_ERR_unexpected_super_in_path_token1, 306), (sym_line_comment, 3),
     (anon_sym_LBRACE, 308), (aux_sym_test_pragma_token1, 9), (aux_sym_once_pragma_token1, 11),
     (aux_sym_must_call_pragma_token1, 13), (aux_sym_export_pragma_token1, 15),
     (anon_sym_SEMI, 310), (anon_sym_PERCENT, 312), (aux_sym_input_decls_token1, 2094),
     (aux_sym_output_decls_token1, 2096), (aux_sym_in_out_decls_token1, 318),
     (aux_sym_var_decls_token1, 2098), (aux_sym_temp_var_decls_token1, 322),
     (aux_sym_external_var_decls_token1, 324), (aux_sym_global_var_decls_token1, 326),
     (aux_sym_method_decl_token1, 330), (aux_sym_method_decl_token3, 2324),
     (aux_sym_prog_access_decls_token1, 332), (aux_sym_config_init_token1, 336),
     (aux_sym__stmt_token1, 340), (aux_sym__stmt_token2, 340), (aux_sym__stmt_token3, 340),
     (aux_sym_if_stmt_token1, 342), (aux_sym_case_stmt_token1, 344), (aux_sym_for_stmt_token1, 346),
     (aux_sym_while_stmt_token1, 348), (aux_sym_repeat_stmt_token1, 350),
     (aux_sym_raise_stmt_token1, 352), (aux_sym_try_stmt_token1, 354),
     (aux_sym_try_stmt_token2, 356), (aux_sym_catch_clause_token1, 356),
     (aux_sym_finally_clause_token1, 356), (sym_ld_rung, 2102), (sym_fbd_network, 2104),
     (sym_c_style_comment, 3), (sym_pascal_style_comment, 3), (sym_pragma, 3)]"

lemma ts_parse_row_940_scan: "row_scan tokens_63_2 0 ts_parse_row_940 = Some (Suc (Suc (Suc (Suc 0))))"
  unfolding ts_parse_row_940_def by simp

text \<open>Lines 161102 to 161206.\<close>

definition ts_parse_row_941 :: parse_row where
  "ts_parse_row_941 =
    [(sym_ERR_assign_func_call, 7530), (sym_ERR_unexpected_this_in_path, 2372),
     (sym_ERR_unexpected_super_in_path, 2372), (sym_ERR_var_access_not_allowed, 3196),
     (sym_ERR_var_config_not_allowed, 3196), (sym_ERR_var_external_not_allowed, 3196),
     (sym_ERR_var_global_not_allowed, 3196), (sym_ERR_method_decl_in_body, 3150),
     (sym_extern_pragma, 7490), (sym_wasm_pragma, 3150), (sym_warn_pragma, 7490),
     (sym_allow_pragma, 3140), (sym_test_pragma, 7490), (sym_once_pragma, 7490),
     (sym_must_call_pragma, 7490), (sym_export_pragma, 7490), (sym_pou_pragma, 7194),
     (sym_direct_variable, 7675), (sym_deref_expression, 2373), (sym_variable, 7599),
     (sym_var_access, 2373), (sym_input_decls, 3196), (sym_output_decls, 3196),
     (sym_in_out_decls, 3196), (sym_var_decls, 3196), (sym_temp_var_decls, 3196),
     (sym_external_var_decls, 3197), (sym_global_var_decls, 2947), (sym_func_body, 8623),
     (sym_method_decl, 3159), (sym__method_decl_variables, 972), (sym_prog_access_decls, 3043),
     (sym_config_init, 3047), (sym_variable_access, 7530), (sym_func_call, 2961),
     (sym_stmt_list, 8165), (sym__stmt, 2024), (sym_assign, 3150), (sym_if_stmt, 3150),
     (sym_case_stmt, 3150), (sym_for_stmt, 3150), (sym_while_stmt, 3150), (sym_repeat_stmt, 3150),
     (sym_raise_stmt, 3150), (sym_try_stmt, 3150), (sym_ERR_clause_outside_try, 3150),
     (sym_begin_path_expression, 2943), (sym_invocation, 2934), (sym_any_invocation, 2935),
     (sym_this_invocation, 2641), (sym_super_invocation, 2641), (sym_super_body_invocation, 2935),
     (sym_path_expression, 2627), (sym_field_expression, 2373), (sym_index_expression, 2373),
     (sym_ladder_diagram, 8165), (sym_fb_diagram, 8165), (aux_sym_func_decl_repeat1, 7194),
     (aux_sym_method_decl_repeat1, 972), (aux_sym_stmt_list_repeat1, 2024),
     (aux_sym_ladder_diagram_repeat1, 7628), (aux_sym_fb_diagram_repeat1, 7633),
     (sym_identifier, 298), (anon_sym_COLON, 2326),
     (aux_sym_ERR_unexpected_this_in_path_token1, 304),
     (aux_sym_ERR_unexpected_super_in_path_token1, 306), (sym_line_comment, 3),
     (anon_sym_LBRACE, 308), (aux_sym_test_pragma_token1, 9), (aux_sym_once_pragma_token1, 11),
     (aux_sym_must_call_pragma_token1, 13), (aux_sym_export_pragma_token1, 15),
     (anon_sym_SEMI, 310), (anon_sym_PERCENT, 312), (aux_sym_input_decls_token1, 2094),
     (aux_sym_output_decls_token1, 2096), (aux_sym_in_out_decls_token1, 318),
     (aux_sym_var_decls_token1, 2098), (aux_sym_temp_var_decls_token1, 322),
     (aux_sym_external_var_decls_token1, 324), (aux_sym_global_var_decls_token1, 326),
     (aux_sym_method_decl_token1, 330), (aux_sym_method_decl_token3, 2328),
     (aux_sym_prog_access_decls_token1, 332), (aux_sym_config_init_token1, 336),
     (aux_sym__stmt_token1, 340), (aux_sym__stmt_token2, 340), (aux_sym__stmt_token3, 340),
     (aux_sym_if_stmt_token1, 342), (aux_sym_case_stmt_token1, 344), (aux_sym_for_stmt_token1, 346),
     (aux_sym_while_stmt_token1, 348), (aux_sym_repeat_stmt_token1, 350),
     (aux_sym_raise_stmt_token1, 352), (aux_sym_try_stmt_token1, 354),
     (aux_sym_try_stmt_token2, 356), (aux_sym_catch_clause_token1, 356),
     (aux_sym_finally_clause_token1, 356), (sym_ld_rung, 2102), (sym_fbd_network, 2104),
     (sym_c_style_comment, 3), (sym_pascal_style_comment, 3), (sym_pragma, 3)]"

lemma ts_parse_row_941_scan: "row_scan tokens_63_2 0 ts_parse_row_941 = Some (Suc (Suc (Suc (Suc 0))))"
  unfolding ts_parse_row_941_def by simp

text \<open>Lines 161207 to 161311.\<close>

definition ts_parse_row_942 :: parse_row where
  "ts_parse_row_942 =
    [(sym_ERR_assign_func_call, 7530), (sym_ERR_unexpected_this_in_path, 2372),
     (sym_ERR_unexpected_super_in_path, 2372), (sym_ERR_var_access_not_allowed, 3196),
     (sym_ERR_var_config_not_allowed, 3196), (sym_ERR_var_external_not_allowed, 3196),
     (sym_ERR_var_global_not_allowed, 3196), (sym_ERR_method_decl_in_body, 3150),
     (sym_extern_pragma, 7490), (sym_wasm_pragma, 3150), (sym_warn_pragma, 7490),
     (sym_allow_pragma, 3140), (sym_test_pragma, 7490), (sym_once_pragma, 7490),
     (sym_must_call_pragma, 7490), (sym_export_pragma, 7490), (sym_pou_pragma, 7194),
     (sym_direct_variable, 7675), (sym_deref_expression, 2373), (sym_variable, 7599),
     (sym_var_access, 2373), (sym_input_decls, 3196), (sym_output_decls, 3196),
     (sym_in_out_decls, 3196), (sym_var_decls, 3196), (sym_temp_var_decls, 3196),
     (sym_external_var_decls, 3197), (sym_global_var_decls, 2947), (sym_func_body, 10362),
     (sym_method_decl, 3159), (sym__method_decl_variables, 1067), (sym_prog_access_decls, 3043),
     (sym_config_init, 3047), (sym_variable_access, 7530), (sym_func_call, 2961),
     (sym_stmt_list, 8165), (sym__stmt, 2024), (sym_assign, 3150), (sym_if_stmt, 3150),
     (sym_case_stmt, 3150), (sym_for_stmt, 3150), (sym_while_stmt, 3150), (sym_repeat_stmt, 3150),
     (sym_raise_stmt, 3150), (sym_try_stmt, 3150), (sym_ERR_clause_outside_try, 3150),
     (sym_begin_path_expression, 2943), (sym_invocation, 2934), (sym_any_invocation, 2935),
     (sym_this_invocation, 2641), (sym_super_invocation, 2641), (sym_super_body_invocation, 2935),
     (sym_path_expression, 2627), (sym_field_expression, 2373), (sym_index_expression, 2373),
     (sym_ladder_diagram, 8165), (sym_fb_diagram, 8165), (aux_sym_func_decl_repeat1, 7194),
     (aux_sym_method_decl_repeat1, 1067), (aux_sym_stmt_list_repeat1, 2024),
     (aux_sym_ladder_diagram_repeat1, 7628), (aux_sym_fb_diagram_repeat1, 7633),
     (sym_identifier, 298), (anon_sym_COLON, 2330),
     (aux_sym_ERR_unexpected_this_in_path_token1, 304),
     (aux_sym_ERR_unexpected_super_in_path_token1, 306), (sym_line_comment, 3),
     (anon_sym_LBRACE, 308), (aux_sym_test_pragma_token1, 9), (aux_sym_once_pragma_token1, 11),
     (aux_sym_must_call_pragma_token1, 13), (aux_sym_export_pragma_token1, 15),
     (anon_sym_SEMI, 310), (anon_sym_PERCENT, 312), (aux_sym_input_decls_token1, 2094),
     (aux_sym_output_decls_token1, 2096), (aux_sym_in_out_decls_token1, 318),
     (aux_sym_var_decls_token1, 2098), (aux_sym_temp_var_decls_token1, 322),
     (aux_sym_external_var_decls_token1, 324), (aux_sym_global_var_decls_token1, 326),
     (aux_sym_method_decl_token1, 330), (aux_sym_method_decl_token3, 2332),
     (aux_sym_prog_access_decls_token1, 332), (aux_sym_config_init_token1, 336),
     (aux_sym__stmt_token1, 340), (aux_sym__stmt_token2, 340), (aux_sym__stmt_token3, 340),
     (aux_sym_if_stmt_token1, 342), (aux_sym_case_stmt_token1, 344), (aux_sym_for_stmt_token1, 346),
     (aux_sym_while_stmt_token1, 348), (aux_sym_repeat_stmt_token1, 350),
     (aux_sym_raise_stmt_token1, 352), (aux_sym_try_stmt_token1, 354),
     (aux_sym_try_stmt_token2, 356), (aux_sym_catch_clause_token1, 356),
     (aux_sym_finally_clause_token1, 356), (sym_ld_rung, 2102), (sym_fbd_network, 2104),
     (sym_c_style_comment, 3), (sym_pascal_style_comment, 3), (sym_pragma, 3)]"

lemma ts_parse_row_942_scan: "row_scan tokens_63_2 0 ts_parse_row_942 = Some (Suc (Suc (Suc (Suc 0))))"
  unfolding ts_parse_row_942_def by simp

text \<open>Lines 161312 to 161416.\<close>

definition ts_parse_row_943 :: parse_row where
  "ts_parse_row_943 =
    [(sym_ERR_assign_func_call, 7530), (sym_ERR_unexpected_this_in_path, 2372),
     (sym_ERR_unexpected_super_in_path, 2372), (sym_ERR_var_access_not_allowed, 3196),
     (sym_ERR_var_config_not_allowed, 3196), (sym_ERR_var_external_not_allowed, 3196),
     (sym_ERR_var_global_not_allowed, 3196), (sym_ERR_method_decl_in_body, 3150),
     (sym_extern_pragma, 7490), (sym_wasm_pragma, 3150), (sym_warn_pragma, 7490),
     (sym_allow_pragma, 3140), (sym_test_pragma, 7490), (sym_once_pragma, 7490),
     (sym_must_call_pragma, 7490), (sym_export_pragma, 7490), (sym_pou_pragma, 7194),
     (sym_direct_variable, 7675), (sym_deref_expression, 2373), (sym_variable, 7599),
     (sym_var_access, 2373), (sym_input_decls, 3196), (sym_output_decls, 3196),
     (sym_in_out_decls, 3196), (sym_var_decls, 3196), (sym_temp_var_decls, 3196),
     (sym_external_var_decls, 3197), (sym_global_var_decls, 2947), (sym_func_body, 10370),
     (sym_method_decl, 3159), (sym__method_decl_variables, 1071), (sym_prog_access_decls, 3043),
     (sym_config_init, 3047), (sym_variable_access, 7530), (sym_func_call, 2961),
     (sym_stmt_list, 8165), (sym__stmt, 2024), (sym_assign, 3150), (sym_if_stmt, 3150),
     (sym_case_stmt, 3150), (sym_for_stmt, 3150), (sym_while_stmt, 3150), (sym_repeat_stmt, 3150),
     (sym_raise_stmt, 3150), (sym_try_stmt, 3150), (sym_ERR_clause_outside_try, 3150),
     (sym_begin_path_expression, 2943), (sym_invocation, 2934), (sym_any_invocation, 2935),
     (sym_this_invocation, 2641), (sym_super_invocation, 2641), (sym_super_body_invocation, 2935),
     (sym_path_expression, 2627), (sym_field_expression, 2373), (sym_index_expression, 2373),
     (sym_ladder_diagram, 8165), (sym_fb_diagram, 8165), (aux_sym_func_decl_repeat1, 7194),
     (aux_sym_method_decl_repeat1, 1071), (aux_sym_stmt_list_repeat1, 2024),
     (aux_sym_ladder_diagram_repeat1, 7628), (aux_sym_fb_diagram_repeat1, 7633),
     (sym_identifier, 298), (anon_sym_COLON, 2334),
     (aux_sym_ERR_unexpected_this_in_path_token1, 304),
     (aux_sym_ERR_unexpected_super_in_path_token1, 306), (sym_line_comment, 3),
     (anon_sym_LBRACE, 308), (aux_sym_test_pragma_token1, 9), (aux_sym_once_pragma_token1, 11),
     (aux_sym_must_call_pragma_token1, 13), (aux_sym_export_pragma_token1, 15),
     (anon_sym_SEMI, 310), (anon_sym_PERCENT, 312), (aux_sym_input_decls_token1, 2094),
     (aux_sym_output_decls_token1, 2096), (aux_sym_in_out_decls_token1, 318),
     (aux_sym_var_decls_token1, 2098), (aux_sym_temp_var_decls_token1, 322),
     (aux_sym_external_var_decls_token1, 324), (aux_sym_global_var_decls_token1, 326),
     (aux_sym_method_decl_token1, 330), (aux_sym_method_decl_token3, 2336),
     (aux_sym_prog_access_decls_token1, 332), (aux_sym_config_init_token1, 336),
     (aux_sym__stmt_token1, 340), (aux_sym__stmt_token2, 340), (aux_sym__stmt_token3, 340),
     (aux_sym_if_stmt_token1, 342), (aux_sym_case_stmt_token1, 344), (aux_sym_for_stmt_token1, 346),
     (aux_sym_while_stmt_token1, 348), (aux_sym_repeat_stmt_token1, 350),
     (aux_sym_raise_stmt_token1, 352), (aux_sym_try_stmt_token1, 354),
     (aux_sym_try_stmt_token2, 356), (aux_sym_catch_clause_token1, 356),
     (aux_sym_finally_clause_token1, 356), (sym_ld_rung, 2102), (sym_fbd_network, 2104),
     (sym_c_style_comment, 3), (sym_pascal_style_comment, 3), (sym_pragma, 3)]"

lemma ts_parse_row_943_scan: "row_scan tokens_63_2 0 ts_parse_row_943 = Some (Suc (Suc (Suc (Suc 0))))"
  unfolding ts_parse_row_943_def by simp

text \<open>Lines 161417 to 161521.\<close>

definition ts_parse_row_944 :: parse_row where
  "ts_parse_row_944 =
    [(sym_ERR_assign_func_call, 7530), (sym_ERR_unexpected_this_in_path, 2372),
     (sym_ERR_unexpected_super_in_path, 2372), (sym_ERR_var_access_not_allowed, 3196),
     (sym_ERR_var_config_not_allowed, 3196), (sym_ERR_var_external_not_allowed, 3196),
     (sym_ERR_var_global_not_allowed, 3196), (sym_ERR_method_decl_in_body, 3150),
     (sym_extern_pragma, 7490), (sym_wasm_pragma, 3150), (sym_warn_pragma, 7490),
     (sym_allow_pragma, 3140), (sym_test_pragma, 7490), (sym_once_pragma, 7490),
     (sym_must_call_pragma, 7490), (sym_export_pragma, 7490), (sym_pou_pragma, 7194),
     (sym_direct_variable, 7675), (sym_deref_expression, 2373), (sym_variable, 7599),
     (sym_var_access, 2373), (sym_input_decls, 3196), (sym_output_decls, 3196),
     (sym_in_out_decls, 3196), (sym_var_decls, 3196), (sym_temp_var_decls, 3196),
     (sym_external_var_decls, 3197), (sym_global_var_decls, 2947), (sym_func_body, 10379),
     (sym_method_decl, 3159), (sym__method_decl_variables, 1076), (sym_prog_access_decls, 3043),
     (sym_config_init, 3047), (sym_variable_access, 7530), (sym_func_call, 2961),
     (sym_stmt_list, 8165), (sym__stmt, 2024), (sym_assign, 3150), (sym_if_stmt, 3150),
     (sym_case_stmt, 3150), (sym_for_stmt, 3150), (sym_while_stmt, 3150), (sym_repeat_stmt, 3150),
     (sym_raise_stmt, 3150), (sym_try_stmt, 3150), (sym_ERR_clause_outside_try, 3150),
     (sym_begin_path_expression, 2943), (sym_invocation, 2934), (sym_any_invocation, 2935),
     (sym_this_invocation, 2641), (sym_super_invocation, 2641), (sym_super_body_invocation, 2935),
     (sym_path_expression, 2627), (sym_field_expression, 2373), (sym_index_expression, 2373),
     (sym_ladder_diagram, 8165), (sym_fb_diagram, 8165), (aux_sym_func_decl_repeat1, 7194),
     (aux_sym_method_decl_repeat1, 1076), (aux_sym_stmt_list_repeat1, 2024),
     (aux_sym_ladder_diagram_repeat1, 7628), (aux_sym_fb_diagram_repeat1, 7633),
     (sym_identifier, 298), (anon_sym_COLON, 2338),
     (aux_sym_ERR_unexpected_this_in_path_token1, 304),
     (aux_sym_ERR_unexpected_super_in_path_token1, 306), (sym_line_comment, 3),
     (anon_sym_LBRACE, 308), (aux_sym_test_pragma_token1, 9), (aux_sym_once_pragma_token1, 11),
     (aux_sym_must_call_pragma_token1, 13), (aux_sym_export_pragma_token1, 15),
     (anon_sym_SEMI, 310), (anon_sym_PERCENT, 312), (aux_sym_input_decls_token1, 2094),
     (aux_sym_output_decls_token1, 2096), (aux_sym_in_out_decls_token1, 318),
     (aux_sym_var_decls_token1, 2098), (aux_sym_temp_var_decls_token1, 322),
     (aux_sym_external_var_decls_token1, 324), (aux_sym_global_var_decls_token1, 326),
     (aux_sym_method_decl_token1, 330), (aux_sym_method_decl_token3, 2340),
     (aux_sym_prog_access_decls_token1, 332), (aux_sym_config_init_token1, 336),
     (aux_sym__stmt_token1, 340), (aux_sym__stmt_token2, 340), (aux_sym__stmt_token3, 340),
     (aux_sym_if_stmt_token1, 342), (aux_sym_case_stmt_token1, 344), (aux_sym_for_stmt_token1, 346),
     (aux_sym_while_stmt_token1, 348), (aux_sym_repeat_stmt_token1, 350),
     (aux_sym_raise_stmt_token1, 352), (aux_sym_try_stmt_token1, 354),
     (aux_sym_try_stmt_token2, 356), (aux_sym_catch_clause_token1, 356),
     (aux_sym_finally_clause_token1, 356), (sym_ld_rung, 2102), (sym_fbd_network, 2104),
     (sym_c_style_comment, 3), (sym_pascal_style_comment, 3), (sym_pragma, 3)]"

lemma ts_parse_row_944_scan: "row_scan tokens_63_2 0 ts_parse_row_944 = Some (Suc (Suc (Suc (Suc 0))))"
  unfolding ts_parse_row_944_def by simp

text \<open>Lines 161522 to 161626.\<close>

definition ts_parse_row_945 :: parse_row where
  "ts_parse_row_945 =
    [(sym_ERR_assign_func_call, 7530), (sym_ERR_unexpected_this_in_path, 2372),
     (sym_ERR_unexpected_super_in_path, 2372), (sym_ERR_var_access_not_allowed, 3196),
     (sym_ERR_var_config_not_allowed, 3196), (sym_ERR_var_external_not_allowed, 3196),
     (sym_ERR_var_global_not_allowed, 3196), (sym_ERR_method_decl_in_body, 3150),
     (sym_extern_pragma, 7490), (sym_wasm_pragma, 3150), (sym_warn_pragma, 7490),
     (sym_allow_pragma, 3140), (sym_test_pragma, 7490), (sym_once_pragma, 7490),
     (sym_must_call_pragma, 7490), (sym_export_pragma, 7490), (sym_pou_pragma, 7194),
     (sym_direct_variable, 7675), (sym_deref_expression, 2373), (sym_variable, 7599),
     (sym_var_access, 2373), (sym_input_decls, 3196), (sym_output_decls, 3196),
     (sym_in_out_decls, 3196), (sym_var_decls, 3196), (sym_temp_var_decls, 3196),
     (sym_external_var_decls, 3197), (sym_global_var_decls, 2947), (sym_func_body, 10381),
     (sym_method_decl, 3159), (sym__method_decl_variables, 1077), (sym_prog_access_decls, 3043),
     (sym_config_init, 3047), (sym_variable_access, 7530), (sym_func_call, 2961),
     (sym_stmt_list, 8165), (sym__stmt, 2024), (sym_assign, 3150), (sym_if_stmt, 3150),
     (sym_case_stmt, 3150), (sym_for_stmt, 3150), (sym_while_stmt, 3150), (sym_repeat_stmt, 3150),
     (sym_raise_stmt, 3150), (sym_try_stmt, 3150), (sym_ERR_clause_outside_try, 3150),
     (sym_begin_path_expression, 2943), (sym_invocation, 2934), (sym_any_invocation, 2935),
     (sym_this_invocation, 2641), (sym_super_invocation, 2641), (sym_super_body_invocation, 2935),
     (sym_path_expression, 2627), (sym_field_expression, 2373), (sym_index_expression, 2373),
     (sym_ladder_diagram, 8165), (sym_fb_diagram, 8165), (aux_sym_func_decl_repeat1, 7194),
     (aux_sym_method_decl_repeat1, 1077), (aux_sym_stmt_list_repeat1, 2024),
     (aux_sym_ladder_diagram_repeat1, 7628), (aux_sym_fb_diagram_repeat1, 7633),
     (sym_identifier, 298), (anon_sym_COLON, 2342),
     (aux_sym_ERR_unexpected_this_in_path_token1, 304),
     (aux_sym_ERR_unexpected_super_in_path_token1, 306), (sym_line_comment, 3),
     (anon_sym_LBRACE, 308), (aux_sym_test_pragma_token1, 9), (aux_sym_once_pragma_token1, 11),
     (aux_sym_must_call_pragma_token1, 13), (aux_sym_export_pragma_token1, 15),
     (anon_sym_SEMI, 310), (anon_sym_PERCENT, 312), (aux_sym_input_decls_token1, 2094),
     (aux_sym_output_decls_token1, 2096), (aux_sym_in_out_decls_token1, 318),
     (aux_sym_var_decls_token1, 2098), (aux_sym_temp_var_decls_token1, 322),
     (aux_sym_external_var_decls_token1, 324), (aux_sym_global_var_decls_token1, 326),
     (aux_sym_method_decl_token1, 330), (aux_sym_method_decl_token3, 2344),
     (aux_sym_prog_access_decls_token1, 332), (aux_sym_config_init_token1, 336),
     (aux_sym__stmt_token1, 340), (aux_sym__stmt_token2, 340), (aux_sym__stmt_token3, 340),
     (aux_sym_if_stmt_token1, 342), (aux_sym_case_stmt_token1, 344), (aux_sym_for_stmt_token1, 346),
     (aux_sym_while_stmt_token1, 348), (aux_sym_repeat_stmt_token1, 350),
     (aux_sym_raise_stmt_token1, 352), (aux_sym_try_stmt_token1, 354),
     (aux_sym_try_stmt_token2, 356), (aux_sym_catch_clause_token1, 356),
     (aux_sym_finally_clause_token1, 356), (sym_ld_rung, 2102), (sym_fbd_network, 2104),
     (sym_c_style_comment, 3), (sym_pascal_style_comment, 3), (sym_pragma, 3)]"

lemma ts_parse_row_945_scan: "row_scan tokens_63_2 0 ts_parse_row_945 = Some (Suc (Suc (Suc (Suc 0))))"
  unfolding ts_parse_row_945_def by simp

text \<open>Lines 161627 to 161731.\<close>

definition ts_parse_row_946 :: parse_row where
  "ts_parse_row_946 =
    [(sym_ERR_assign_func_call, 7530), (sym_ERR_unexpected_this_in_path, 2372),
     (sym_ERR_unexpected_super_in_path, 2372), (sym_ERR_var_access_not_allowed, 3196),
     (sym_ERR_var_config_not_allowed, 3196), (sym_ERR_var_external_not_allowed, 3196),
     (sym_ERR_var_global_not_allowed, 3196), (sym_ERR_method_decl_in_body, 3150),
     (sym_extern_pragma, 7490), (sym_wasm_pragma, 3150), (sym_warn_pragma, 7490),
     (sym_allow_pragma, 3140), (sym_test_pragma, 7490), (sym_once_pragma, 7490),
     (sym_must_call_pragma, 7490), (sym_export_pragma, 7490), (sym_pou_pragma, 7194),
     (sym_direct_variable, 7675), (sym_deref_expression, 2373), (sym_variable, 7599),
     (sym_var_access, 2373), (sym_input_decls, 3196), (sym_output_decls, 3196),
     (sym_in_out_decls, 3196), (sym_var_decls, 3196), (sym_temp_var_decls, 3196),
     (sym_external_var_decls, 3197), (sym_global_var_decls, 2947), (sym_func_body, 10403),
     (sym_method_decl, 3159), (sym__method_decl_variables, 1086), (sym_prog_access_decls, 3043),
     (sym_config_init, 3047), (sym_variable_access, 7530), (sym_func_call, 2961),
     (sym_stmt_list, 8165), (sym__stmt, 2024), (sym_assign, 3150), (sym_if_stmt, 3150),
     (sym_case_stmt, 3150), (sym_for_stmt, 3150), (sym_while_stmt, 3150), (sym_repeat_stmt, 3150),
     (sym_raise_stmt, 3150), (sym_try_stmt, 3150), (sym_ERR_clause_outside_try, 3150),
     (sym_begin_path_expression, 2943), (sym_invocation, 2934), (sym_any_invocation, 2935),
     (sym_this_invocation, 2641), (sym_super_invocation, 2641), (sym_super_body_invocation, 2935),
     (sym_path_expression, 2627), (sym_field_expression, 2373), (sym_index_expression, 2373),
     (sym_ladder_diagram, 8165), (sym_fb_diagram, 8165), (aux_sym_func_decl_repeat1, 7194),
     (aux_sym_method_decl_repeat1, 1086), (aux_sym_stmt_list_repeat1, 2024),
     (aux_sym_ladder_diagram_repeat1, 7628), (aux_sym_fb_diagram_repeat1, 7633),
     (sym_identifier, 298), (anon_sym_COLON, 2346),
     (aux_sym_ERR_unexpected_this_in_path_token1, 304),
     (aux_sym_ERR_unexpected_super_in_path_token1, 306), (sym_line_comment, 3),
     (anon_sym_LBRACE, 308), (aux_sym_test_pragma_token1, 9), (aux_sym_once_pragma_token1, 11),
     (aux_sym_must_call_pragma_token1, 13), (aux_sym_export_pragma_token1, 15),
     (anon_sym_SEMI, 310), (anon_sym_PERCENT, 312), (aux_sym_input_decls_token1, 2094),
     (aux_sym_output_decls_token1, 2096), (aux_sym_in_out_decls_token1, 318),
     (aux_sym_var_decls_token1, 2098), (aux_sym_temp_var_decls_token1, 322),
     (aux_sym_external_var_decls_token1, 324), (aux_sym_global_var_decls_token1, 326),
     (aux_sym_method_decl_token1, 330), (aux_sym_method_decl_token3, 2348),
     (aux_sym_prog_access_decls_token1, 332), (aux_sym_config_init_token1, 336),
     (aux_sym__stmt_token1, 340), (aux_sym__stmt_token2, 340), (aux_sym__stmt_token3, 340),
     (aux_sym_if_stmt_token1, 342), (aux_sym_case_stmt_token1, 344), (aux_sym_for_stmt_token1, 346),
     (aux_sym_while_stmt_token1, 348), (aux_sym_repeat_stmt_token1, 350),
     (aux_sym_raise_stmt_token1, 352), (aux_sym_try_stmt_token1, 354),
     (aux_sym_try_stmt_token2, 356), (aux_sym_catch_clause_token1, 356),
     (aux_sym_finally_clause_token1, 356), (sym_ld_rung, 2102), (sym_fbd_network, 2104),
     (sym_c_style_comment, 3), (sym_pascal_style_comment, 3), (sym_pragma, 3)]"

lemma ts_parse_row_946_scan: "row_scan tokens_63_2 0 ts_parse_row_946 = Some (Suc (Suc (Suc (Suc 0))))"
  unfolding ts_parse_row_946_def by simp

text \<open>Lines 161732 to 161836.\<close>

definition ts_parse_row_947 :: parse_row where
  "ts_parse_row_947 =
    [(sym_ERR_assign_func_call, 7530), (sym_ERR_unexpected_this_in_path, 2372),
     (sym_ERR_unexpected_super_in_path, 2372), (sym_ERR_var_access_not_allowed, 3196),
     (sym_ERR_var_config_not_allowed, 3196), (sym_ERR_var_external_not_allowed, 3196),
     (sym_ERR_var_global_not_allowed, 3196), (sym_ERR_method_decl_in_body, 3150),
     (sym_extern_pragma, 7490), (sym_wasm_pragma, 3150), (sym_warn_pragma, 7490),
     (sym_allow_pragma, 3140), (sym_test_pragma, 7490), (sym_once_pragma, 7490),
     (sym_must_call_pragma, 7490), (sym_export_pragma, 7490), (sym_pou_pragma, 7194),
     (sym_direct_variable, 7675), (sym_deref_expression, 2373), (sym_variable, 7599),
     (sym_var_access, 2373), (sym_input_decls, 3196), (sym_output_decls, 3196),
     (sym_in_out_decls, 3196), (sym_var_decls, 3196), (sym_temp_var_decls, 3196),
     (sym_external_var_decls, 3197), (sym_global_var_decls, 2947), (sym_func_body, 8550),
     (sym_method_decl, 3159), (sym__method_decl_variables, 950), (sym_prog_access_decls, 3043),
     (sym_config_init, 3047), (sym_variable_access, 7530), (sym_func_call, 2961),
     (sym_stmt_list, 8165), (sym__stmt, 2024), (sym_assign, 3150), (sym_if_stmt, 3150),
     (sym_case_stmt, 3150), (sym_for_stmt, 3150), (sym_while_stmt, 3150), (sym_repeat_stmt, 3150),
     (sym_raise_stmt, 3150), (sym_try_stmt, 3150), (sym_ERR_clause_outside_try, 3150),
     (sym_begin_path_expression, 2943), (sym_invocation, 2934), (sym_any_invocation, 2935),
     (sym_this_invocation, 2641), (sym_super_invocation, 2641), (sym_super_body_invocation, 2935),
     (sym_path_expression, 2627), (sym_field_expression, 2373), (sym_index_expression, 2373),
     (sym_ladder_diagram, 8165), (sym_fb_diagram, 8165), (aux_sym_func_decl_repeat1, 7194),
     (aux_sym_method_decl_repeat1, 950), (aux_sym_stmt_list_repeat1, 2024),
     (aux_sym_ladder_diagram_repeat1, 7628), (aux_sym_fb_diagram_repeat1, 7633),
     (sym_identifier, 298), (anon_sym_COLON, 2350),
     (aux_sym_ERR_unexpected_this_in_path_token1, 304),
     (aux_sym_ERR_unexpected_super_in_path_token1, 306), (sym_line_comment, 3),
     (anon_sym_LBRACE, 308), (aux_sym_test_pragma_token1, 9), (aux_sym_once_pragma_token1, 11),
     (aux_sym_must_call_pragma_token1, 13), (aux_sym_export_pragma_token1, 15),
     (anon_sym_SEMI, 310), (anon_sym_PERCENT, 312), (aux_sym_input_decls_token1, 2094),
     (aux_sym_output_decls_token1, 2096), (aux_sym_in_out_decls_token1, 318),
     (aux_sym_var_decls_token1, 2098), (aux_sym_temp_var_decls_token1, 322),
     (aux_sym_external_var_decls_token1, 324), (aux_sym_global_var_decls_token1, 326),
     (aux_sym_method_decl_token1, 330), (aux_sym_method_decl_token3, 2352),
     (aux_sym_prog_access_decls_token1, 332), (aux_sym_config_init_token1, 336),
     (aux_sym__stmt_token1, 340), (aux_sym__stmt_token2, 340), (aux_sym__stmt_token3, 340),
     (aux_sym_if_stmt_token1, 342), (aux_sym_case_stmt_token1, 344), (aux_sym_for_stmt_token1, 346),
     (aux_sym_while_stmt_token1, 348), (aux_sym_repeat_stmt_token1, 350),
     (aux_sym_raise_stmt_token1, 352), (aux_sym_try_stmt_token1, 354),
     (aux_sym_try_stmt_token2, 356), (aux_sym_catch_clause_token1, 356),
     (aux_sym_finally_clause_token1, 356), (sym_ld_rung, 2102), (sym_fbd_network, 2104),
     (sym_c_style_comment, 3), (sym_pascal_style_comment, 3), (sym_pragma, 3)]"

lemma ts_parse_row_947_scan: "row_scan tokens_63_2 0 ts_parse_row_947 = Some (Suc (Suc (Suc (Suc 0))))"
  unfolding ts_parse_row_947_def by simp

text \<open>Lines 161837 to 161941.\<close>

definition ts_parse_row_948 :: parse_row where
  "ts_parse_row_948 =
    [(sym_ERR_assign_func_call, 7530), (sym_ERR_unexpected_this_in_path, 2372),
     (sym_ERR_unexpected_super_in_path, 2372), (sym_ERR_var_access_not_allowed, 3196),
     (sym_ERR_var_config_not_allowed, 3196), (sym_ERR_var_external_not_allowed, 3196),
     (sym_ERR_var_global_not_allowed, 3196), (sym_ERR_method_decl_in_body, 3150),
     (sym_extern_pragma, 7490), (sym_wasm_pragma, 3150), (sym_warn_pragma, 7490),
     (sym_allow_pragma, 3140), (sym_test_pragma, 7490), (sym_once_pragma, 7490),
     (sym_must_call_pragma, 7490), (sym_export_pragma, 7490), (sym_pou_pragma, 7194),
     (sym_direct_variable, 7675), (sym_deref_expression, 2373), (sym_variable, 7599),
     (sym_var_access, 2373), (sym_input_decls, 3196), (sym_output_decls, 3196),
     (sym_in_out_decls, 3196), (sym_var_decls, 3196), (sym_temp_var_decls, 3196),
     (sym_external_var_decls, 3197), (sym_global_var_decls, 2947), (sym_func_body, 10147),
     (sym_method_decl, 3159), (sym__method_decl_variables, 992), (sym_prog_access_decls, 3043),
     (sym_config_init, 3047), (sym_variable_access, 7530), (sym_func_call, 2961),
     (sym_stmt_list, 8165), (sym__stmt, 2024), (sym_assign, 3150), (sym_if_stmt, 3150),
     (sym_case_stmt, 3150), (sym_for_stmt, 3150), (sym_while_stmt, 3150), (sym_repeat_stmt, 3150),
     (sym_raise_stmt, 3150), (sym_try_stmt, 3150), (sym_ERR_clause_outside_try, 3150),
     (sym_begin_path_expression, 2943), (sym_invocation, 2934), (sym_any_invocation, 2935),
     (sym_this_invocation, 2641), (sym_super_invocation, 2641), (sym_super_body_invocation, 2935),
     (sym_path_expression, 2627), (sym_field_expression, 2373), (sym_index_expression, 2373),
     (sym_ladder_diagram, 8165), (sym_fb_diagram, 8165), (aux_sym_func_decl_repeat1, 7194),
     (aux_sym_method_decl_repeat1, 992), (aux_sym_stmt_list_repeat1, 2024),
     (aux_sym_ladder_diagram_repeat1, 7628), (aux_sym_fb_diagram_repeat1, 7633),
     (sym_identifier, 298), (anon_sym_COLON, 2354),
     (aux_sym_ERR_unexpected_this_in_path_token1, 304),
     (aux_sym_ERR_unexpected_super_in_path_token1, 306), (sym_line_comment, 3),
     (anon_sym_LBRACE, 308), (aux_sym_test_pragma_token1, 9), (aux_sym_once_pragma_token1, 11),
     (aux_sym_must_call_pragma_token1, 13), (aux_sym_export_pragma_token1, 15),
     (anon_sym_SEMI, 310), (anon_sym_PERCENT, 312), (aux_sym_input_decls_token1, 2094),
     (aux_sym_output_decls_token1, 2096), (aux_sym_in_out_decls_token1, 318),
     (aux_sym_var_decls_token1, 2098), (aux_sym_temp_var_decls_token1, 322),
     (aux_sym_external_var_decls_token1, 324), (aux_sym_global_var_decls_token1, 326),
     (aux_sym_method_decl_token1, 330), (aux_sym_method_decl_token3, 2356),
     (aux_sym_prog_access_decls_token1, 332), (aux_sym_config_init_token1, 336),
     (aux_sym__stmt_token1, 340), (aux_sym__stmt_token2, 340), (aux_sym__stmt_token3, 340),
     (aux_sym_if_stmt_token1, 342), (aux_sym_case_stmt_token1, 344), (aux_sym_for_stmt_token1, 346),
     (aux_sym_while_stmt_token1, 348), (aux_sym_repeat_stmt_token1, 350),
     (aux_sym_raise_stmt_token1, 352), (aux_sym_try_stmt_token1, 354),
     (aux_sym_try_stmt_token2, 356), (aux_sym_catch_clause_token1, 356),
     (aux_sym_finally_clause_token1, 356), (sym_ld_rung, 2102), (sym_fbd_network, 2104),
     (sym_c_style_comment, 3), (sym_pascal_style_comment, 3), (sym_pragma, 3)]"

lemma ts_parse_row_948_scan: "row_scan tokens_63_2 0 ts_parse_row_948 = Some (Suc (Suc (Suc (Suc 0))))"
  unfolding ts_parse_row_948_def by simp

text \<open>Lines 161942 to 162045.\<close>

definition ts_parse_row_949 :: parse_row where
  "ts_parse_row_949 =
    [(sym_ERR_assign_func_call, 7530), (sym_ERR_unexpected_this_in_path, 2372),
     (sym_ERR_unexpected_super_in_path, 2372), (sym_ERR_var_access_not_allowed, 3196),
     (sym_ERR_var_config_not_allowed, 3196), (sym_ERR_var_external_not_allowed, 3196),
     (sym_ERR_var_global_not_allowed, 3196), (sym_ERR_method_decl_in_body, 3150),
     (sym_extern_pragma, 7490), (sym_wasm_pragma, 3150), (sym_warn_pragma, 7490),
     (sym_allow_pragma, 3140), (sym_test_pragma, 7490), (sym_once_pragma, 7490),
     (sym_must_call_pragma, 7490), (sym_export_pragma, 7490), (sym_pou_pragma, 7194),
     (sym_direct_variable, 7675), (sym_deref_expression, 2373), (sym_variable, 7599),
     (sym_var_access, 2373), (sym_input_decls, 3196), (sym_output_decls, 3196),
     (sym_in_out_decls, 3196), (sym_var_decls, 3196), (sym_temp_var_decls, 3196),
     (sym_external_var_decls, 3197), (sym_global_var_decls, 2947), (sym_func_body, 10412),
     (sym_method_decl, 3159), (sym__method_decl_variables, 1090), (sym_prog_access_decls, 3043),
     (sym_config_init, 3047), (sym_variable_access, 7530), (sym_func_call, 2961),
     (sym_stmt_list, 8165), (sym__stmt, 2024), (sym_assign, 3150), (sym_if_stmt, 3150),
     (sym_case_stmt, 3150), (sym_for_stmt, 3150), (sym_while_stmt, 3150), (sym_repeat_stmt, 3150),
     (sym_raise_stmt, 3150), (sym_try_stmt, 3150), (sym_ERR_clause_outside_try, 3150),
     (sym_begin_path_expression, 2943), (sym_invocation, 2934), (sym_any_invocation, 2935),
     (sym_this_invocation, 2641), (sym_super_invocation, 2641), (sym_super_body_invocation, 2935),
     (sym_path_expression, 2627), (sym_field_expression, 2373), (sym_index_expression, 2373),
     (sym_ladder_diagram, 8165), (sym_fb_diagram, 8165), (aux_sym_func_decl_repeat1, 7194),
     (aux_sym_method_decl_repeat1, 1090), (aux_sym_stmt_list_repeat1, 2024),
     (aux_sym_ladder_diagram_repeat1, 7628), (aux_sym_fb_diagram_repeat1, 7633),
     (sym_identifier, 298), (aux_sym_ERR_unexpected_this_in_path_token1, 304),
     (aux_sym_ERR_unexpected_super_in_path_token1, 306), (sym_line_comment, 3),
     (anon_sym_LBRACE, 308), (aux_sym_test_pragma_token1, 9), (aux_sym_once_pragma_token1, 11),
     (aux_sym_must_call_pragma_token1, 13), (aux_sym_export_pragma_token1, 15),
     (anon_sym_SEMI, 310), (anon_sym_PERCENT, 312), (aux_sym_input_decls_token1, 2094),
     (aux_sym_output_decls_token1, 2096), (aux_sym_in_out_decls_token1, 318),
     (aux_sym_var_decls_token1, 2098), (aux_sym_temp_var_decls_token1, 322),
     (aux_sym_external_var_decls_token1, 324), (aux_sym_global_var_decls_token1, 326),
     (aux_sym_method_decl_token1, 330), (aux_sym_method_decl_token3, 2358),
     (aux_sym_prog_access_decls_token1, 332), (aux_sym_config_init_token1, 336),
     (aux_sym__stmt_token1, 340), (aux_sym__stmt_token2, 340), (aux_sym__stmt_token3, 340),
     (aux_sym_if_stmt_token1, 342), (aux_sym_case_stmt_token1, 344), (aux_sym_for_stmt_token1, 346),
     (aux_sym_while_stmt_token1, 348), (aux_sym_repeat_stmt_token1, 350),
     (aux_sym_raise_stmt_token1, 352), (aux_sym_try_stmt_token1, 354),
     (aux_sym_try_stmt_token2, 356), (aux_sym_catch_clause_token1, 356),
     (aux_sym_finally_clause_token1, 356), (sym_ld_rung, 2102), (sym_fbd_network, 2104),
     (sym_c_style_comment, 3), (sym_pascal_style_comment, 3), (sym_pragma, 3)]"

lemma ts_parse_row_949_scan: "row_scan tokens_63_2 0 ts_parse_row_949 = Some (Suc (Suc (Suc (Suc 0))))"
  unfolding ts_parse_row_949_def by simp

text \<open>Lines 162046 to 162149.\<close>

definition ts_parse_row_950 :: parse_row where
  "ts_parse_row_950 =
    [(sym_ERR_assign_func_call, 7530), (sym_ERR_unexpected_this_in_path, 2372),
     (sym_ERR_unexpected_super_in_path, 2372), (sym_ERR_var_access_not_allowed, 3196),
     (sym_ERR_var_config_not_allowed, 3196), (sym_ERR_var_external_not_allowed, 3196),
     (sym_ERR_var_global_not_allowed, 3196), (sym_ERR_method_decl_in_body, 3150),
     (sym_extern_pragma, 7490), (sym_wasm_pragma, 3150), (sym_warn_pragma, 7490),
     (sym_allow_pragma, 3140), (sym_test_pragma, 7490), (sym_once_pragma, 7490),
     (sym_must_call_pragma, 7490), (sym_export_pragma, 7490), (sym_pou_pragma, 7194),
     (sym_direct_variable, 7675), (sym_deref_expression, 2373), (sym_variable, 7599),
     (sym_var_access, 2373), (sym_input_decls, 3196), (sym_output_decls, 3196),
     (sym_in_out_decls, 3196), (sym_var_decls, 3196), (sym_temp_var_decls, 3196),
     (sym_external_var_decls, 3197), (sym_global_var_decls, 2947), (sym_func_body, 10094),
     (sym_method_decl, 3159), (sym__method_decl_variables, 2368), (sym_prog_access_decls, 3043),
     (sym_config_init, 3047), (sym_variable_access, 7530), (sym_func_call, 2961),
     (sym_stmt_list, 8165), (sym__stmt, 2024), (sym_assign, 3150), (sym_if_stmt, 3150),
     (sym_case_stmt, 3150), (sym_for_stmt, 3150), (sym_while_stmt, 3150), (sym_repeat_stmt, 3150),
     (sym_raise_stmt, 3150), (sym_try_stmt, 3150), (sym_ERR_clause_outside_try, 3150),
     (sym_begin_path_expression, 2943), (sym_invocation, 2934), (sym_any_invocation, 2935),
     (sym_this_invocation, 2641), (sym_super_invocation, 2641), (sym_super_body_invocation, 2935),
     (sym_path_expression, 2627), (sym_field_expression, 2373), (sym_index_expression, 2373),
     (sym_ladder_diagram, 8165), (sym_fb_diagram, 8165), (aux_sym_func_decl_repeat1, 7194),
     (aux_sym_method_decl_repeat1, 2368), (aux_sym_stmt_list_repeat1, 2024),
     (aux_sym_ladder_diagram_repeat1, 7628), (aux_sym_fb_diagram_repeat1, 7633),
     (sym_identifier, 298), (aux_sym_ERR_unexpected_this_in_path_token1, 304),
     (aux_sym_ERR_unexpected_super_in_path_token1, 306), (sym_line_comment, 3),
     (anon_sym_LBRACE, 308), (aux_sym_test_pragma_token1, 9), (aux_sym_once_pragma_token1, 11),
     (aux_sym_must_call_pragma_token1, 13), (aux_sym_export_pragma_token1, 15),
     (anon_sym_SEMI, 310), (anon_sym_PERCENT, 312), (aux_sym_input_decls_token1, 2094),
     (aux_sym_output_decls_token1, 2096), (aux_sym_in_out_decls_token1, 318),
     (aux_sym_var_decls_token1, 2098), (aux_sym_temp_var_decls_token1, 322),
     (aux_sym_external_var_decls_token1, 324), (aux_sym_global_var_decls_token1, 326),
     (aux_sym_method_decl_token1, 330), (aux_sym_method_decl_token3, 2360),
     (aux_sym_prog_access_decls_token1, 332), (aux_sym_config_init_token1, 336),
     (aux_sym__stmt_token1, 340), (aux_sym__stmt_token2, 340), (aux_sym__stmt_token3, 340),
     (aux_sym_if_stmt_token1, 342), (aux_sym_case_stmt_token1, 344), (aux_sym_for_stmt_token1, 346),
     (aux_sym_while_stmt_token1, 348), (aux_sym_repeat_stmt_token1, 350),
     (aux_sym_raise_stmt_token1, 352), (aux_sym_try_stmt_token1, 354),
     (aux_sym_try_stmt_token2, 356), (aux_sym_catch_clause_token1, 356),
     (aux_sym_finally_clause_token1, 356), (sym_ld_rung, 2102), (sym_fbd_network, 2104),
     (sym_c_style_comment, 3), (sym_pascal_style_comment, 3), (sym_pragma, 3)]"

lemma ts_parse_row_950_scan: "row_scan tokens_63_2 0 ts_parse_row_950 = Some (Suc (Suc (Suc (Suc 0))))"
  unfolding ts_parse_row_950_def by simp

text \<open>Lines 162150 to 162253.\<close>

definition ts_parse_row_951 :: parse_row where
  "ts_parse_row_951 =
    [(sym_ERR_assign_func_call, 7530), (sym_ERR_unexpected_this_in_path, 2372),
     (sym_ERR_unexpected_super_in_path, 2372), (sym_ERR_var_access_not_allowed, 3266),
     (sym_ERR_var_config_not_allowed, 3266), (sym_ERR_var_external_not_allowed, 3266),
     (sym_ERR_var_global_not_allowed, 3266), (sym_ERR_method_decl_in_body, 3150),
     (sym_extern_pragma, 7490), (sym_wasm_pragma, 3150), (sym_warn_pragma, 7490),
     (sym_allow_pragma, 3140), (sym_test_pragma, 7490), (sym_once_pragma, 7490),
     (sym_must_call_pragma, 7490), (sym_export_pragma, 7490), (sym_pou_pragma, 7194),
     (sym_direct_variable, 7675), (sym_deref_expression, 2373), (sym_variable, 7599),
     (sym_var_access, 2373), (sym_input_decls, 3266), (sym_output_decls, 3266),
     (sym_in_out_decls, 3266), (sym_var_decls, 3266), (sym_temp_var_decls, 3266),
     (sym_external_var_decls, 3248), (sym_global_var_decls, 2947), (sym__func_variables, 2367),
     (sym_func_body, 9133), (sym_method_decl, 3159), (sym_prog_access_decls, 3043),
     (sym_config_init, 3047), (sym_variable_access, 7530), (sym_func_call, 2961),
     (sym_stmt_list, 8165), (sym__stmt, 2024), (sym_assign, 3150), (sym_if_stmt, 3150),
     (sym_case_stmt, 3150), (sym_for_stmt, 3150), (sym_while_stmt, 3150), (sym_repeat_stmt, 3150),
     (sym_raise_stmt, 3150), (sym_try_stmt, 3150), (sym_ERR_clause_outside_try, 3150),
     (sym_begin_path_expression, 2943), (sym_invocation, 2934), (sym_any_invocation, 2935),
     (sym_this_invocation, 2641), (sym_super_invocation, 2641), (sym_super_body_invocation, 2935),
     (sym_path_expression, 2627), (sym_field_expression, 2373), (sym_index_expression, 2373),
     (sym_ladder_diagram, 8165), (sym_fb_diagram, 8165), (aux_sym_func_decl_repeat1, 7194),
     (aux_sym_func_decl_repeat3, 2367), (aux_sym_stmt_list_repeat1, 2024),
     (aux_sym_ladder_diagram_repeat1, 7628), (aux_sym_fb_diagram_repeat1, 7633),
     (sym_identifier, 298), (aux_sym_ERR_unexpected_this_in_path_token1, 304),
     (aux_sym_ERR_unexpected_super_in_path_token1, 306), (sym_line_comment, 3),
     (anon_sym_LBRACE, 308), (aux_sym_test_pragma_token1, 9), (aux_sym_once_pragma_token1, 11),
     (aux_sym_must_call_pragma_token1, 13), (aux_sym_export_pragma_token1, 15),
     (anon_sym_SEMI, 310), (anon_sym_PERCENT, 312), (aux_sym_input_decls_token1, 2094),
     (aux_sym_output_decls_token1, 2096), (aux_sym_in_out_decls_token1, 318),
     (aux_sym_var_decls_token1, 2098), (aux_sym_temp_var_decls_token1, 322),
     (aux_sym_external_var_decls_token1, 324), (aux_sym_global_var_decls_token1, 326),
     (aux_sym_func_decl_token2, 2362), (aux_sym_method_decl_token1, 330),
     (aux_sym_prog_access_decls_token1, 332), (aux_sym_config_init_token1, 336),
     (aux_sym__stmt_token1, 340), (aux_sym__stmt_token2, 340), (aux_sym__stmt_token3, 340),
     (aux_sym_if_stmt_token1, 342), (aux_sym_case_stmt_token1, 344), (aux_sym_for_stmt_token1, 346),
     (aux_sym_while_stmt_token1, 348), (aux_sym_repeat_stmt_token1, 350),
     (aux_sym_raise_stmt_token1, 352), (aux_sym_try_stmt_token1, 354),
     (aux_sym_try_stmt_token2, 356), (aux_sym_catch_clause_token1, 356),
     (aux_sym_finally_clause_token1, 356), (sym_ld_rung, 2102), (sym_fbd_network, 2104),
     (sym_c_style_comment, 3), (sym_pascal_style_comment, 3), (sym_pragma, 3)]"

lemma ts_parse_row_951_scan: "row_scan tokens_63_2 0 ts_parse_row_951 = Some (Suc (Suc (Suc (Suc 0))))"
  unfolding ts_parse_row_951_def by simp

text \<open>Lines 162254 to 162357.\<close>

definition ts_parse_row_952 :: parse_row where
  "ts_parse_row_952 =
    [(sym_ERR_assign_func_call, 7530), (sym_ERR_unexpected_this_in_path, 2372),
     (sym_ERR_unexpected_super_in_path, 2372), (sym_ERR_var_access_not_allowed, 3266),
     (sym_ERR_var_config_not_allowed, 3266), (sym_ERR_var_external_not_allowed, 3266),
     (sym_ERR_var_global_not_allowed, 3266), (sym_ERR_method_decl_in_body, 3150),
     (sym_extern_pragma, 7490), (sym_wasm_pragma, 3150), (sym_warn_pragma, 7490),
     (sym_allow_pragma, 3140), (sym_test_pragma, 7490), (sym_once_pragma, 7490),
     (sym_must_call_pragma, 7490), (sym_export_pragma, 7490), (sym_pou_pragma, 7194),
     (sym_direct_variable, 7675), (sym_deref_expression, 2373), (sym_variable, 7599),
     (sym_var_access, 2373), (sym_input_decls, 3266), (sym_output_decls, 3266),
     (sym_in_out_decls, 3266), (sym_var_decls, 3266), (sym_temp_var_decls, 3266),
     (sym_external_var_decls, 3248), (sym_global_var_decls, 2947), (sym__func_variables, 2367),
     (sym_func_body, 10460), (sym_method_decl, 3159), (sym_prog_access_decls, 3043),
     (sym_config_init, 3047), (sym_variable_access, 7530), (sym_func_call, 2961),
     (sym_stmt_list, 8165), (sym__stmt, 2024), (sym_assign, 3150), (sym_if_stmt, 3150),
     (sym_case_stmt, 3150), (sym_for_stmt, 3150), (sym_while_stmt, 3150), (sym_repeat_stmt, 3150),
     (sym_raise_stmt, 3150), (sym_try_stmt, 3150), (sym_ERR_clause_outside_try, 3150),
     (sym_begin_path_expression, 2943), (sym_invocation, 2934), (sym_any_invocation, 2935),
     (sym_this_invocation, 2641), (sym_super_invocation, 2641), (sym_super_body_invocation, 2935),
     (sym_path_expression, 2627), (sym_field_expression, 2373), (sym_index_expression, 2373),
     (sym_ladder_diagram, 8165), (sym_fb_diagram, 8165), (aux_sym_func_decl_repeat1, 7194),
     (aux_sym_func_decl_repeat3, 2367), (aux_sym_stmt_list_repeat1, 2024),
     (aux_sym_ladder_diagram_repeat1, 7628), (aux_sym_fb_diagram_repeat1, 7633),
     (sym_identifier, 298), (aux_sym_ERR_unexpected_this_in_path_token1, 304),
     (aux_sym_ERR_unexpected_super_in_path_token1, 306), (sym_line_comment, 3),
     (anon_sym_LBRACE, 308), (aux_sym_test_pragma_token1, 9), (aux_sym_once_pragma_token1, 11),
     (aux_sym_must_call_pragma_token1, 13), (aux_sym_export_pragma_token1, 15),
     (anon_sym_SEMI, 310), (anon_sym_PERCENT, 312), (aux_sym_input_decls_token1, 2094),
     (aux_sym_output_decls_token1, 2096), (aux_sym_in_out_decls_token1, 318),
     (aux_sym_var_decls_token1, 2098), (aux_sym_temp_var_decls_token1, 322),
     (aux_sym_external_var_decls_token1, 324), (aux_sym_global_var_decls_token1, 326),
     (aux_sym_func_decl_token2, 2364), (aux_sym_method_decl_token1, 330),
     (aux_sym_prog_access_decls_token1, 332), (aux_sym_config_init_token1, 336),
     (aux_sym__stmt_token1, 340), (aux_sym__stmt_token2, 340), (aux_sym__stmt_token3, 340),
     (aux_sym_if_stmt_token1, 342), (aux_sym_case_stmt_token1, 344), (aux_sym_for_stmt_token1, 346),
     (aux_sym_while_stmt_token1, 348), (aux_sym_repeat_stmt_token1, 350),
     (aux_sym_raise_stmt_token1, 352), (aux_sym_try_stmt_token1, 354),
     (aux_sym_try_stmt_token2, 356), (aux_sym_catch_clause_token1, 356),
     (aux_sym_finally_clause_token1, 356), (sym_ld_rung, 2102), (sym_fbd_network, 2104),
     (sym_c_style_comment, 3), (sym_pascal_style_comment, 3), (sym_pragma, 3)]"

lemma ts_parse_row_952_scan: "row_scan tokens_63_2 0 ts_parse_row_952 = Some (Suc (Suc (Suc (Suc 0))))"
  unfolding ts_parse_row_952_def by simp

text \<open>Lines 162358 to 162461.\<close>

definition ts_parse_row_953 :: parse_row where
  "ts_parse_row_953 =
    [(sym_ERR_assign_func_call, 7530), (sym_ERR_unexpected_this_in_path, 2372),
     (sym_ERR_unexpected_super_in_path, 2372), (sym_ERR_var_access_not_allowed, 3196),
     (sym_ERR_var_config_not_allowed, 3196), (sym_ERR_var_external_not_allowed, 3196),
     (sym_ERR_var_global_not_allowed, 3196), (sym_ERR_method_decl_in_body, 3150),
     (sym_extern_pragma, 7490), (sym_wasm_pragma, 3150), (sym_warn_pragma, 7490),
     (sym_allow_pragma, 3140), (sym_test_pragma, 7490), (sym_once_pragma, 7490),
     (sym_must_call_pragma, 7490), (sym_export_pragma, 7490), (sym_pou_pragma, 7194),
     (sym_direct_variable, 7675), (sym_deref_expression, 2373), (sym_variable, 7599),
     (sym_var_access, 2373), (sym_input_decls, 3196), (sym_output_decls, 3196),
     (sym_in_out_decls, 3196), (sym_var_decls, 3196), (sym_temp_var_decls, 3196),
     (sym_external_var_decls, 3197), (sym_global_var_decls, 2947), (sym_func_body, 8430),
     (sym_method_decl, 3159), (sym__method_decl_variables, 2368), (sym_prog_access_decls, 3043),
     (sym_config_init, 3047), (sym_variable_access, 7530), (sym_func_call, 2961),
     (sym_stmt_list, 8165), (sym__stmt, 2024), (sym_assign, 3150), (sym_if_stmt, 3150),
     (sym_case_stmt, 3150), (sym_for_stmt, 3150), (sym_while_stmt, 3150), (sym_repeat_stmt, 3150),
     (sym_raise_stmt, 3150), (sym_try_stmt, 3150), (sym_ERR_clause_outside_try, 3150),
     (sym_begin_path_expression, 2943), (sym_invocation, 2934), (sym_any_invocation, 2935),
     (sym_this_invocation, 2641), (sym_super_invocation, 2641), (sym_super_body_invocation, 2935),
     (sym_path_expression, 2627), (sym_field_expression, 2373), (sym_index_expression, 2373),
     (sym_ladder_diagram, 8165), (sym_fb_diagram, 8165), (aux_sym_func_decl_repeat1, 7194),
     (aux_sym_method_decl_repeat1, 2368), (aux_sym_stmt_list_repeat1, 2024),
     (aux_sym_ladder_diagram_repeat1, 7628), (aux_sym_fb_diagram_repeat1, 7633),
     (sym_identifier, 298), (aux_sym_ERR_unexpected_this_in_path_token1, 304),
     (aux_sym_ERR_unexpected_super_in_path_token1, 306), (sym_line_comment, 3),
     (anon_sym_LBRACE, 308), (aux_sym_test_pragma_token1, 9), (aux_sym_once_pragma_token1, 11),
     (aux_sym_must_call_pragma_token1, 13), (aux_sym_export_pragma_token1, 15),
     (anon_sym_SEMI, 310), (anon_sym_PERCENT, 312), (aux_sym_input_decls_token1, 2094),
     (aux_sym_output_decls_token1, 2096), (aux_sym_in_out_decls_token1, 318),
     (aux_sym_var_decls_token1, 2098), (aux_sym_temp_var_decls_token1, 322),
     (aux_sym_external_var_decls_token1, 324), (aux_sym_global_var_decls_token1, 326),
     (aux_sym_method_decl_token1, 330), (aux_sym_method_decl_token3, 2366),
     (aux_sym_prog_access_decls_token1, 332), (aux_sym_config_init_token1, 336),
     (aux_sym__stmt_token1, 340), (aux_sym__stmt_token2, 340), (aux_sym__stmt_token3, 340),
     (aux_sym_if_stmt_token1, 342), (aux_sym_case_stmt_token1, 344), (aux_sym_for_stmt_token1, 346),
     (aux_sym_while_stmt_token1, 348), (aux_sym_repeat_stmt_token1, 350),
     (aux_sym_raise_stmt_token1, 352), (aux_sym_try_stmt_token1, 354),
     (aux_sym_try_stmt_token2, 356), (aux_sym_catch_clause_token1, 356),
     (aux_sym_finally_clause_token1, 356), (sym_ld_rung, 2102), (sym_fbd_network, 2104),
     (sym_c_style_comment, 3), (sym_pascal_style_comment, 3), (sym_pragma, 3)]"

lemma ts_parse_row_953_scan: "row_scan tokens_63_2 0 ts_parse_row_953 = Some (Suc (Suc (Suc (Suc 0))))"
  unfolding ts_parse_row_953_def by simp

text \<open>Lines 162462 to 162565.\<close>

definition ts_parse_row_954 :: parse_row where
  "ts_parse_row_954 =
    [(sym_ERR_assign_func_call, 7530), (sym_ERR_unexpected_this_in_path, 2372),
     (sym_ERR_unexpected_super_in_path, 2372), (sym_ERR_var_access_not_allowed, 3196),
     (sym_ERR_var_config_not_allowed, 3196), (sym_ERR_var_external_not_allowed, 3196),
     (sym_ERR_var_global_not_allowed, 3196), (sym_ERR_method_decl_in_body, 3150),
     (sym_extern_pragma, 7490), (sym_wasm_pragma, 3150), (sym_warn_pragma, 7490),
     (sym_allow_pragma, 3140), (sym_test_pragma, 7490), (sym_once_pragma, 7490),
     (sym_must_call_pragma, 7490), (sym_export_pragma, 7490), (sym_pou_pragma, 7194),
     (sym_direct_variable, 7675), (sym_deref_expression, 2373), (sym_variable, 7599),
     (sym_var_access, 2373), (sym_input_decls, 3196), (sym_output_decls, 3196),
     (sym_in_out_decls, 3196), (sym_var_decls, 3196), (sym_temp_var_decls, 3196),
     (sym_external_var_decls, 3197), (sym_global_var_decls, 2947), (sym_func_body, 8434),
     (sym_method_decl, 3159), (sym__method_decl_variables, 989), (sym_prog_access_decls, 3043),
     (sym_config_init, 3047), (sym_variable_access, 7530), (sym_func_call, 2961),
     (sym_stmt_list, 8165), (sym__stmt, 2024), (sym_assign, 3150), (sym_if_stmt, 3150),
     (sym_case_stmt, 3150), (sym_for_stmt, 3150), (sym_while_stmt, 3150), (sym_repeat_stmt, 3150),
     (sym_raise_stmt, 3150), (sym_try_stmt, 3150), (sym_ERR_clause_outside_try, 3150),
     (sym_begin_path_expression, 2943), (sym_invocation, 2934), (sym_any_invocation, 2935),
     (sym_this_invocation, 2641), (sym_super_invocation, 2641), (sym_super_body_invocation, 2935),
     (sym_path_expression, 2627), (sym_field_expression, 2373), (sym_index_expression, 2373),
     (sym_ladder_diagram, 8165), (sym_fb_diagram, 8165), (aux_sym_func_decl_repeat1, 7194),
     (aux_sym_method_decl_repeat1, 989), (aux_sym_stmt_list_repeat1, 2024),
     (aux_sym_ladder_diagram_repeat1, 7628), (aux_sym_fb_diagram_repeat1, 7633),
     (sym_identifier, 298), (aux_sym_ERR_unexpected_this_in_path_token1, 304),
     (aux_sym_ERR_unexpected_super_in_path_token1, 306), (sym_line_comment, 3),
     (anon_sym_LBRACE, 308), (aux_sym_test_pragma_token1, 9), (aux_sym_once_pragma_token1, 11),
     (aux_sym_must_call_pragma_token1, 13), (aux_sym_export_pragma_token1, 15),
     (anon_sym_SEMI, 310), (anon_sym_PERCENT, 312), (aux_sym_input_decls_token1, 2094),
     (aux_sym_output_decls_token1, 2096), (aux_sym_in_out_decls_token1, 318),
     (aux_sym_var_decls_token1, 2098), (aux_sym_temp_var_decls_token1, 322),
     (aux_sym_external_var_decls_token1, 324), (aux_sym_global_var_decls_token1, 326),
     (aux_sym_method_decl_token1, 330), (aux_sym_method_decl_token3, 2368),
     (aux_sym_prog_access_decls_token1, 332), (aux_sym_config_init_token1, 336),
     (aux_sym__stmt_token1, 340), (aux_sym__stmt_token2, 340), (aux_sym__stmt_token3, 340),
     (aux_sym_if_stmt_token1, 342), (aux_sym_case_stmt_token1, 344), (aux_sym_for_stmt_token1, 346),
     (aux_sym_while_stmt_token1, 348), (aux_sym_repeat_stmt_token1, 350),
     (aux_sym_raise_stmt_token1, 352), (aux_sym_try_stmt_token1, 354),
     (aux_sym_try_stmt_token2, 356), (aux_sym_catch_clause_token1, 356),
     (aux_sym_finally_clause_token1, 356), (sym_ld_rung, 2102), (sym_fbd_network, 2104),
     (sym_c_style_comment, 3), (sym_pascal_style_comment, 3), (sym_pragma, 3)]"

lemma ts_parse_row_954_scan: "row_scan tokens_63_2 0 ts_parse_row_954 = Some (Suc (Suc (Suc (Suc 0))))"
  unfolding ts_parse_row_954_def by simp

text \<open>Lines 162566 to 162669.\<close>

definition ts_parse_row_955 :: parse_row where
  "ts_parse_row_955 =
    [(sym_ERR_assign_func_call, 7530), (sym_ERR_unexpected_this_in_path, 2372),
     (sym_ERR_unexpected_super_in_path, 2372), (sym_ERR_var_access_not_allowed, 3196),
     (sym_ERR_var_config_not_allowed, 3196), (sym_ERR_var_external_not_allowed, 3196),
     (sym_ERR_var_global_not_allowed, 3196), (sym_ERR_method_decl_in_body, 3150),
     (sym_extern_pragma, 7490), (sym_wasm_pragma, 3150), (sym_warn_pragma, 7490),
     (sym_allow_pragma, 3140), (sym_test_pragma, 7490), (sym_once_pragma, 7490),
     (sym_must_call_pragma, 7490), (sym_export_pragma, 7490), (sym_pou_pragma, 7194),
     (sym_direct_variable, 7675), (sym_deref_expression, 2373), (sym_variable, 7599),
     (sym_var_access, 2373), (sym_input_decls, 3196), (sym_output_decls, 3196),
     (sym_in_out_decls, 3196), (sym_var_decls, 3196), (sym_temp_var_decls, 3196),
     (sym_external_var_decls, 3197), (sym_global_var_decls, 2947), (sym_func_body, 8443),
     (sym_method_decl, 3159), (sym__method_decl_variables, 1062), (sym_prog_access_decls, 3043),
     (sym_config_init, 3047), (sym_variable_access, 7530), (sym_func_call, 2961),
     (sym_stmt_list, 8165), (sym__stmt, 2024), (sym_assign, 3150), (sym_if_stmt, 3150),
     (sym_case_stmt, 3150), (sym_for_stmt, 3150), (sym_while_stmt, 3150), (sym_repeat_stmt, 3150),
     (sym_raise_stmt, 3150), (sym_try_stmt, 3150), (sym_ERR_clause_outside_try, 3150),
     (sym_begin_path_expression, 2943), (sym_invocation, 2934), (sym_any_invocation, 2935),
     (sym_this_invocation, 2641), (sym_super_invocation, 2641), (sym_super_body_invocation, 2935),
     (sym_path_expression, 2627), (sym_field_expression, 2373), (sym_index_expression, 2373),
     (sym_ladder_diagram, 8165), (sym_fb_diagram, 8165), (aux_sym_func_decl_repeat1, 7194),
     (aux_sym_method_decl_repeat1, 1062), (aux_sym_stmt_list_repeat1, 2024),
     (aux_sym_ladder_diagram_repeat1, 7628), (aux_sym_fb_diagram_repeat1, 7633),
     (sym_identifier, 298), (aux_sym_ERR_unexpected_this_in_path_token1, 304),
     (aux_sym_ERR_unexpected_super_in_path_token1, 306), (sym_line_comment, 3),
     (anon_sym_LBRACE, 308), (aux_sym_test_pragma_token1, 9), (aux_sym_once_pragma_token1, 11),
     (aux_sym_must_call_pragma_token1, 13), (aux_sym_export_pragma_token1, 15),
     (anon_sym_SEMI, 310), (anon_sym_PERCENT, 312), (aux_sym_input_decls_token1, 2094),
     (aux_sym_output_decls_token1, 2096), (aux_sym_in_out_decls_token1, 318),
     (aux_sym_var_decls_token1, 2098), (aux_sym_temp_var_decls_token1, 322),
     (aux_sym_external_var_decls_token1, 324), (aux_sym_global_var_decls_token1, 326),
     (aux_sym_method_decl_token1, 330), (aux_sym_method_decl_token3, 2370),
     (aux_sym_prog_access_decls_token1, 332), (aux_sym_config_init_token1, 336),
     (aux_sym__stmt_token1, 340), (aux_sym__stmt_token2, 340), (aux_sym__stmt_token3, 340),
     (aux_sym_if_stmt_token1, 342), (aux_sym_case_stmt_token1, 344), (aux_sym_for_stmt_token1, 346),
     (aux_sym_while_stmt_token1, 348), (aux_sym_repeat_stmt_token1, 350),
     (aux_sym_raise_stmt_token1, 352), (aux_sym_try_stmt_token1, 354),
     (aux_sym_try_stmt_token2, 356), (aux_sym_catch_clause_token1, 356),
     (aux_sym_finally_clause_token1, 356), (sym_ld_rung, 2102), (sym_fbd_network, 2104),
     (sym_c_style_comment, 3), (sym_pascal_style_comment, 3), (sym_pragma, 3)]"

lemma ts_parse_row_955_scan: "row_scan tokens_63_2 0 ts_parse_row_955 = Some (Suc (Suc (Suc (Suc 0))))"
  unfolding ts_parse_row_955_def by simp

text \<open>Lines 162670 to 162773.\<close>

definition ts_parse_row_956 :: parse_row where
  "ts_parse_row_956 =
    [(sym_ERR_assign_func_call, 7530), (sym_ERR_unexpected_this_in_path, 2372),
     (sym_ERR_unexpected_super_in_path, 2372), (sym_ERR_var_access_not_allowed, 3196),
     (sym_ERR_var_config_not_allowed, 3196), (sym_ERR_var_external_not_allowed, 3196),
     (sym_ERR_var_global_not_allowed, 3196), (sym_ERR_method_decl_in_body, 3150),
     (sym_extern_pragma, 7490), (sym_wasm_pragma, 3150), (sym_warn_pragma, 7490),
     (sym_allow_pragma, 3140), (sym_test_pragma, 7490), (sym_once_pragma, 7490),
     (sym_must_call_pragma, 7490), (sym_export_pragma, 7490), (sym_pou_pragma, 7194),
     (sym_direct_variable, 7675), (sym_deref_expression, 2373), (sym_variable, 7599),
     (sym_var_access, 2373), (sym_input_decls, 3196), (sym_output_decls, 3196),
     (sym_in_out_decls, 3196), (sym_var_decls, 3196), (sym_temp_var_decls, 3196),
     (sym_external_var_decls, 3197), (sym_global_var_decls, 2947), (sym_func_body, 8458),
     (sym_method_decl, 3159), (sym__method_decl_variables, 2368), (sym_prog_access_decls, 3043),
     (sym_config_init, 3047), (sym_variable_access, 7530), (sym_func_call, 2961),
     (sym_stmt_list, 8165), (sym__stmt, 2024), (sym_assign, 3150), (sym_if_stmt, 3150),
     (sym_case_stmt, 3150), (sym_for_stmt, 3150), (sym_while_stmt, 3150), (sym_repeat_stmt, 3150),
     (sym_raise_stmt, 3150), (sym_try_stmt, 3150), (sym_ERR_clause_outside_try, 3150),
     (sym_begin_path_expression, 2943), (sym_invocation, 2934), (sym_any_invocation, 2935),
     (sym_this_invocation, 2641), (sym_super_invocation, 2641), (sym_super_body_invocation, 2935),
     (sym_path_expression, 2627), (sym_field_expression, 2373), (sym_index_expression, 2373),
     (sym_ladder_diagram, 8165), (sym_fb_diagram, 8165), (aux_sym_func_decl_repeat1, 7194),
     (aux_sym_method_decl_repeat1, 2368), (aux_sym_stmt_list_repeat1, 2024),
     (aux_sym_ladder_diagram_repeat1, 7628), (aux_sym_fb_diagram_repeat1, 7633),
     (sym_identifier, 298), (aux_sym_ERR_unexpected_this_in_path_token1, 304),
     (aux_sym_ERR_unexpected_super_in_path_token1, 306), (sym_line_comment, 3),
     (anon_sym_LBRACE, 308), (aux_sym_test_pragma_token1, 9), (aux_sym_once_pragma_token1, 11),
     (aux_sym_must_call_pragma_token1, 13), (aux_sym_export_pragma_token1, 15),
     (anon_sym_SEMI, 310), (anon_sym_PERCENT, 312), (aux_sym_input_decls_token1, 2094),
     (aux_sym_output_decls_token1, 2096), (aux_sym_in_out_decls_token1, 318),
     (aux_sym_var_decls_token1, 2098), (aux_sym_temp_var_decls_token1, 322),
     (aux_sym_external_var_decls_token1, 324), (aux_sym_global_var_decls_token1, 326),
     (aux_sym_method_decl_token1, 330), (aux_sym_method_decl_token3, 2372),
     (aux_sym_prog_access_decls_token1, 332), (aux_sym_config_init_token1, 336),
     (aux_sym__stmt_token1, 340), (aux_sym__stmt_token2, 340), (aux_sym__stmt_token3, 340),
     (aux_sym_if_stmt_token1, 342), (aux_sym_case_stmt_token1, 344), (aux_sym_for_stmt_token1, 346),
     (aux_sym_while_stmt_token1, 348), (aux_sym_repeat_stmt_token1, 350),
     (aux_sym_raise_stmt_token1, 352), (aux_sym_try_stmt_token1, 354),
     (aux_sym_try_stmt_token2, 356), (aux_sym_catch_clause_token1, 356),
     (aux_sym_finally_clause_token1, 356), (sym_ld_rung, 2102), (sym_fbd_network, 2104),
     (sym_c_style_comment, 3), (sym_pascal_style_comment, 3), (sym_pragma, 3)]"

lemma ts_parse_row_956_scan: "row_scan tokens_63_2 0 ts_parse_row_956 = Some (Suc (Suc (Suc (Suc 0))))"
  unfolding ts_parse_row_956_def by simp

text \<open>Lines 162774 to 162877.\<close>

definition ts_parse_row_957 :: parse_row where
  "ts_parse_row_957 =
    [(sym_ERR_assign_func_call, 7530), (sym_ERR_unexpected_this_in_path, 2372),
     (sym_ERR_unexpected_super_in_path, 2372), (sym_ERR_var_access_not_allowed, 3266),
     (sym_ERR_var_config_not_allowed, 3266), (sym_ERR_var_external_not_allowed, 3266),
     (sym_ERR_var_global_not_allowed, 3266), (sym_ERR_method_decl_in_body, 3150),
     (sym_extern_pragma, 7490), (sym_wasm_pragma, 3150), (sym_warn_pragma, 7490),
     (sym_allow_pragma, 3140), (sym_test_pragma, 7490), (sym_once_pragma, 7490),
     (sym_must_call_pragma, 7490), (sym_export_pragma, 7490), (sym_pou_pragma, 7194),
     (sym_direct_variable, 7675), (sym_deref_expression, 2373), (sym_variable, 7599),
     (sym_var_access, 2373), (sym_input_decls, 3266), (sym_output_decls, 3266),
     (sym_in_out_decls, 3266), (sym_var_decls, 3266), (sym_temp_var_decls, 3266),
     (sym_external_var_decls, 3248), (sym_global_var_decls, 2947), (sym__func_variables, 2367),
     (sym_func_body, 9671), (sym_method_decl, 3159), (sym_prog_access_decls, 3043),
     (sym_config_init, 3047), (sym_variable_access, 7530), (sym_func_call, 2961),
     (sym_stmt_list, 8165), (sym__stmt, 2024), (sym_assign, 3150), (sym_if_stmt, 3150),
     (sym_case_stmt, 3150), (sym_for_stmt, 3150), (sym_while_stmt, 3150), (sym_repeat_stmt, 3150),
     (sym_raise_stmt, 3150), (sym_try_stmt, 3150), (sym_ERR_clause_outside_try, 3150),
     (sym_begin_path_expression, 2943), (sym_invocation, 2934), (sym_any_invocation, 2935),
     (sym_this_invocation, 2641), (sym_super_invocation, 2641), (sym_super_body_invocation, 2935),
     (sym_path_expression, 2627), (sym_field_expression, 2373), (sym_index_expression, 2373),
     (sym_ladder_diagram, 8165), (sym_fb_diagram, 8165), (aux_sym_func_decl_repeat1, 7194),
     (aux_sym_func_decl_repeat3, 2367), (aux_sym_stmt_list_repeat1, 2024),
     (aux_sym_ladder_diagram_repeat1, 7628), (aux_sym_fb_diagram_repeat1, 7633),
     (sym_identifier, 298), (aux_sym_ERR_unexpected_this_in_path_token1, 304),
     (aux_sym_ERR_unexpected_super_in_path_token1, 306), (sym_line_comment, 3),
     (anon_sym_LBRACE, 308), (aux_sym_test_pragma_token1, 9), (aux_sym_once_pragma_token1, 11),
     (aux_sym_must_call_pragma_token1, 13), (aux_sym_export_pragma_token1, 15),
     (anon_sym_SEMI, 310), (anon_sym_PERCENT, 312), (aux_sym_input_decls_token1, 2094),
     (aux_sym_output_decls_token1, 2096), (aux_sym_in_out_decls_token1, 318),
     (aux_sym_var_decls_token1, 2098), (aux_sym_temp_var_decls_token1, 322),
     (aux_sym_external_var_decls_token1, 324), (aux_sym_global_var_decls_token1, 326),
     (aux_sym_func_decl_token2, 2374), (aux_sym_method_decl_token1, 330),
     (aux_sym_prog_access_decls_token1, 332), (aux_sym_config_init_token1, 336),
     (aux_sym__stmt_token1, 340), (aux_sym__stmt_token2, 340), (aux_sym__stmt_token3, 340),
     (aux_sym_if_stmt_token1, 342), (aux_sym_case_stmt_token1, 344), (aux_sym_for_stmt_token1, 346),
     (aux_sym_while_stmt_token1, 348), (aux_sym_repeat_stmt_token1, 350),
     (aux_sym_raise_stmt_token1, 352), (aux_sym_try_stmt_token1, 354),
     (aux_sym_try_stmt_token2, 356), (aux_sym_catch_clause_token1, 356),
     (aux_sym_finally_clause_token1, 356), (sym_ld_rung, 2102), (sym_fbd_network, 2104),
     (sym_c_style_comment, 3), (sym_pascal_style_comment, 3), (sym_pragma, 3)]"

lemma ts_parse_row_957_scan: "row_scan tokens_63_2 0 ts_parse_row_957 = Some (Suc (Suc (Suc (Suc 0))))"
  unfolding ts_parse_row_957_def by simp

text \<open>Lines 162878 to 162981.\<close>

definition ts_parse_row_958 :: parse_row where
  "ts_parse_row_958 =
    [(sym_ERR_assign_func_call, 7530), (sym_ERR_unexpected_this_in_path, 2372),
     (sym_ERR_unexpected_super_in_path, 2372), (sym_ERR_var_access_not_allowed, 3196),
     (sym_ERR_var_config_not_allowed, 3196), (sym_ERR_var_external_not_allowed, 3196),
     (sym_ERR_var_global_not_allowed, 3196), (sym_ERR_method_decl_in_body, 3150),
     (sym_extern_pragma, 7490), (sym_wasm_pragma, 3150), (sym_warn_pragma, 7490),
     (sym_allow_pragma, 3140), (sym_test_pragma, 7490), (sym_once_pragma, 7490),
     (sym_must_call_pragma, 7490), (sym_export_pragma, 7490), (sym_pou_pragma, 7194),
     (sym_direct_variable, 7675), (sym_deref_expression, 2373), (sym_variable, 7599),
     (sym_var_access, 2373), (sym_input_decls, 3196), (sym_output_decls, 3196),
     (sym_in_out_decls, 3196), (sym_var_decls, 3196), (sym_temp_var_decls, 3196),
     (sym_external_var_decls, 3197), (sym_global_var_decls, 2947), (sym_func_body, 8478),
     (sym_method_decl, 3159), (sym__method_decl_variables, 2368), (sym_prog_access_decls, 3043),
     (sym_config_init, 3047), (sym_variable_access, 7530), (sym_func_call, 2961),
     (sym_stmt_list, 8165), (sym__stmt, 2024), (sym_assign, 3150), (sym_if_stmt, 3150),
     (sym_case_stmt, 3150), (sym_for_stmt, 3150), (sym_while_stmt, 3150), (sym_repeat_stmt, 3150),
     (sym_raise_stmt, 3150), (sym_try_stmt, 3150), (sym_ERR_clause_outside_try, 3150),
     (sym_begin_path_expression, 2943), (sym_invocation, 2934), (sym_any_invocation, 2935),
     (sym_this_invocation, 2641), (sym_super_invocation, 2641), (sym_super_body_invocation, 2935),
     (sym_path_expression, 2627), (sym_field_expression, 2373), (sym_index_expression, 2373),
     (sym_ladder_diagram, 8165), (sym_fb_diagram, 8165), (aux_sym_func_decl_repeat1, 7194),
     (aux_sym_method_decl_repeat1, 2368), (aux_sym_stmt_list_repeat1, 2024),
     (aux_sym_ladder_diagram_repeat1, 7628), (aux_sym_fb_diagram_repeat1, 7633),
     (sym_identifier, 298), (aux_sym_ERR_unexpected_this_in_path_token1, 304),
     (aux_sym_ERR_unexpected_super_in_path_token1, 306), (sym_line_comment, 3),
     (anon_sym_LBRACE, 308), (aux_sym_test_pragma_token1, 9), (aux_sym_once_pragma_token1, 11),
     (aux_sym_must_call_pragma_token1, 13), (aux_sym_export_pragma_token1, 15),
     (anon_sym_SEMI, 310), (anon_sym_PERCENT, 312), (aux_sym_input_decls_token1, 2094),
     (aux_sym_output_decls_token1, 2096), (aux_sym_in_out_decls_token1, 318),
     (aux_sym_var_decls_token1, 2098), (aux_sym_temp_var_decls_token1, 322),
     (aux_sym_external_var_decls_token1, 324), (aux_sym_global_var_decls_token1, 326),
     (aux_sym_method_decl_token1, 330), (aux_sym_method_decl_token3, 2376),
     (aux_sym_prog_access_decls_token1, 332), (aux_sym_config_init_token1, 336),
     (aux_sym__stmt_token1, 340), (aux_sym__stmt_token2, 340), (aux_sym__stmt_token3, 340),
     (aux_sym_if_stmt_token1, 342), (aux_sym_case_stmt_token1, 344), (aux_sym_for_stmt_token1, 346),
     (aux_sym_while_stmt_token1, 348), (aux_sym_repeat_stmt_token1, 350),
     (aux_sym_raise_stmt_token1, 352), (aux_sym_try_stmt_token1, 354),
     (aux_sym_try_stmt_token2, 356), (aux_sym_catch_clause_token1, 356),
     (aux_sym_finally_clause_token1, 356), (sym_ld_rung, 2102), (sym_fbd_network, 2104),
     (sym_c_style_comment, 3), (sym_pascal_style_comment, 3), (sym_pragma, 3)]"

lemma ts_parse_row_958_scan: "row_scan tokens_63_2 0 ts_parse_row_958 = Some (Suc (Suc (Suc (Suc 0))))"
  unfolding ts_parse_row_958_def by simp

text \<open>Lines 162982 to 163085.\<close>

definition ts_parse_row_959 :: parse_row where
  "ts_parse_row_959 =
    [(sym_ERR_assign_func_call, 7530), (sym_ERR_unexpected_this_in_path, 2372),
     (sym_ERR_unexpected_super_in_path, 2372), (sym_ERR_var_access_not_allowed, 3196),
     (sym_ERR_var_config_not_allowed, 3196), (sym_ERR_var_external_not_allowed, 3196),
     (sym_ERR_var_global_not_allowed, 3196), (sym_ERR_method_decl_in_body, 3150),
     (sym_extern_pragma, 7490), (sym_wasm_pragma, 3150), (sym_warn_pragma, 7490),
     (sym_allow_pragma, 3140), (sym_test_pragma, 7490), (sym_once_pragma, 7490),
     (sym_must_call_pragma, 7490), (sym_export_pragma, 7490), (sym_pou_pragma, 7194),
     (sym_direct_variable, 7675), (sym_deref_expression, 2373), (sym_variable, 7599),
     (sym_var_access, 2373), (sym_input_decls, 3196), (sym_output_decls, 3196),
     (sym_in_out_decls, 3196), (sym_var_decls, 3196), (sym_temp_var_decls, 3196),
     (sym_external_var_decls, 3197), (sym_global_var_decls, 2947), (sym_func_body, 8488),
     (sym_method_decl, 3159), (sym__method_decl_variables, 2368), (sym_prog_access_decls, 3043),
     (sym_config_init, 3047), (sym_variable_access, 7530), (sym_func_call, 2961),
     (sym_stmt_list, 8165), (sym__stmt, 2024), (sym_assign, 3150), (sym_if_stmt, 3150),
     (sym_case_stmt, 3150), (sym_for_stmt, 3150), (sym_while_stmt, 3150), (sym_repeat_stmt, 3150),
     (sym_raise_stmt, 3150), (sym_try_stmt, 3150), (sym_ERR_clause_outside_try, 3150),
     (sym_begin_path_expression, 2943), (sym_invocation, 2934), (sym_any_invocation, 2935),
     (sym_this_invocation, 2641), (sym_super_invocation, 2641), (sym_super_body_invocation, 2935),
     (sym_path_expression, 2627), (sym_field_expression, 2373), (sym_index_expression, 2373),
     (sym_ladder_diagram, 8165), (sym_fb_diagram, 8165), (aux_sym_func_decl_repeat1, 7194),
     (aux_sym_method_decl_repeat1, 2368), (aux_sym_stmt_list_repeat1, 2024),
     (aux_sym_ladder_diagram_repeat1, 7628), (aux_sym_fb_diagram_repeat1, 7633),
     (sym_identifier, 298), (aux_sym_ERR_unexpected_this_in_path_token1, 304),
     (aux_sym_ERR_unexpected_super_in_path_token1, 306), (sym_line_comment, 3),
     (anon_sym_LBRACE, 308), (aux_sym_test_pragma_token1, 9), (aux_sym_once_pragma_token1, 11),
     (aux_sym_must_call_pragma_token1, 13), (aux_sym_export_pragma_token1, 15),
     (anon_sym_SEMI, 310), (anon_sym_PERCENT, 312), (aux_sym_input_decls_token1, 2094),
     (aux_sym_output_decls_token1, 2096), (aux_sym_in_out_decls_token1, 318),
     (aux_sym_var_decls_token1, 2098), (aux_sym_temp_var_decls_token1, 322),
     (aux_sym_external_var_decls_token1, 324), (aux_sym_global_var_decls_token1, 326),
     (aux_sym_method_decl_token1, 330), (aux_sym_method_decl_token3, 2378),
     (aux_sym_prog_access_decls_token1, 332), (aux_sym_config_init_token1, 336),
     (aux_sym__stmt_token1, 340), (aux_sym__stmt_token2, 340), (aux_sym__stmt_token3, 340),
     (aux_sym_if_stmt_token1, 342), (aux_sym_case_stmt_token1, 344), (aux_sym_for_stmt_token1, 346),
     (aux_sym_while_stmt_token1, 348), (aux_sym_repeat_stmt_token1, 350),
     (aux_sym_raise_stmt_token1, 352), (aux_sym_try_stmt_token1, 354),
     (aux_sym_try_stmt_token2, 356), (aux_sym_catch_clause_token1, 356),
     (aux_sym_finally_clause_token1, 356), (sym_ld_rung, 2102), (sym_fbd_network, 2104),
     (sym_c_style_comment, 3), (sym_pascal_style_comment, 3), (sym_pragma, 3)]"

lemma ts_parse_row_959_scan: "row_scan tokens_63_2 0 ts_parse_row_959 = Some (Suc (Suc (Suc (Suc 0))))"
  unfolding ts_parse_row_959_def by simp

text \<open>Lines 163086 to 163189.\<close>

definition ts_parse_row_960 :: parse_row where
  "ts_parse_row_960 =
    [(sym_ERR_assign_func_call, 7530), (sym_ERR_unexpected_this_in_path, 2372),
     (sym_ERR_unexpected_super_in_path, 2372), (sym_ERR_var_access_not_allowed, 3196),
     (sym_ERR_var_config_not_allowed, 3196), (sym_ERR_var_external_not_allowed, 3196),
     (sym_ERR_var_global_not_allowed, 3196), (sym_ERR_method_decl_in_body, 3150),
     (sym_extern_pragma, 7490), (sym_wasm_pragma, 3150), (sym_warn_pragma, 7490),
     (sym_allow_pragma, 3140), (sym_test_pragma, 7490), (sym_once_pragma, 7490),
     (sym_must_call_pragma, 7490), (sym_export_pragma, 7490), (sym_pou_pragma, 7194),
     (sym_direct_variable, 7675), (sym_deref_expression, 2373), (sym_variable, 7599),
     (sym_var_access, 2373), (sym_input_decls, 3196), (sym_output_decls, 3196),
     (sym_in_out_decls, 3196), (sym_var_decls, 3196), (sym_temp_var_decls, 3196),
     (sym_external_var_decls, 3197), (sym_global_var_decls, 2947), (sym_func_body, 8492),
     (sym_method_decl, 3159), (sym__method_decl_variables, 1047), (sym_prog_access_decls, 3043),
     (sym_config_init, 3047), (sym_variable_access, 7530), (sym_func_call, 2961),
     (sym_stmt_list, 8165), (sym__stmt, 2024), (sym_assign, 3150), (sym_if_stmt, 3150),
     (sym_case_stmt, 3150), (sym_for_stmt, 3150), (sym_while_stmt, 3150), (sym_repeat_stmt, 3150),
     (sym_raise_stmt, 3150), (sym_try_stmt, 3150), (sym_ERR_clause_outside_try, 3150),
     (sym_begin_path_expression, 2943), (sym_invocation, 2934), (sym_any_invocation, 2935),
     (sym_this_invocation, 2641), (sym_super_invocation, 2641), (sym_super_body_invocation, 2935),
     (sym_path_expression, 2627), (sym_field_expression, 2373), (sym_index_expression, 2373),
     (sym_ladder_diagram, 8165), (sym_fb_diagram, 8165), (aux_sym_func_decl_repeat1, 7194),
     (aux_sym_method_decl_repeat1, 1047), (aux_sym_stmt_list_repeat1, 2024),
     (aux_sym_ladder_diagram_repeat1, 7628), (aux_sym_fb_diagram_repeat1, 7633),
     (sym_identifier, 298), (aux_sym_ERR_unexpected_this_in_path_token1, 304),
     (aux_sym_ERR_unexpected_super_in_path_token1, 306), (sym_line_comment, 3),
     (anon_sym_LBRACE, 308), (aux_sym_test_pragma_token1, 9), (aux_sym_once_pragma_token1, 11),
     (aux_sym_must_call_pragma_token1, 13), (aux_sym_export_pragma_token1, 15),
     (anon_sym_SEMI, 310), (anon_sym_PERCENT, 312), (aux_sym_input_decls_token1, 2094),
     (aux_sym_output_decls_token1, 2096), (aux_sym_in_out_decls_token1, 318),
     (aux_sym_var_decls_token1, 2098), (aux_sym_temp_var_decls_token1, 322),
     (aux_sym_external_var_decls_token1, 324), (aux_sym_global_var_decls_token1, 326),
     (aux_sym_method_decl_token1, 330), (aux_sym_method_decl_token3, 2380),
     (aux_sym_prog_access_decls_token1, 332), (aux_sym_config_init_token1, 336),
     (aux_sym__stmt_token1, 340), (aux_sym__stmt_token2, 340), (aux_sym__stmt_token3, 340),
     (aux_sym_if_stmt_token1, 342), (aux_sym_case_stmt_token1, 344), (aux_sym_for_stmt_token1, 346),
     (aux_sym_while_stmt_token1, 348), (aux_sym_repeat_stmt_token1, 350),
     (aux_sym_raise_stmt_token1, 352), (aux_sym_try_stmt_token1, 354),
     (aux_sym_try_stmt_token2, 356), (aux_sym_catch_clause_token1, 356),
     (aux_sym_finally_clause_token1, 356), (sym_ld_rung, 2102), (sym_fbd_network, 2104),
     (sym_c_style_comment, 3), (sym_pascal_style_comment, 3), (sym_pragma, 3)]"

lemma ts_parse_row_960_scan: "row_scan tokens_63_2 0 ts_parse_row_960 = Some (Suc (Suc (Suc (Suc 0))))"
  unfolding ts_parse_row_960_def by simp

text \<open>Lines 163190 to 163293.\<close>

definition ts_parse_row_961 :: parse_row where
  "ts_parse_row_961 =
    [(sym_ERR_assign_func_call, 7530), (sym_ERR_unexpected_this_in_path, 2372),
     (sym_ERR_unexpected_super_in_path, 2372), (sym_ERR_var_access_not_allowed, 3266),
     (sym_ERR_var_config_not_allowed, 3266), (sym_ERR_var_external_not_allowed, 3266),
     (sym_ERR_var_global_not_allowed, 3266), (sym_ERR_method_decl_in_body, 3150),
     (sym_extern_pragma, 7490), (sym_wasm_pragma, 3150), (sym_warn_pragma, 7490),
     (sym_allow_pragma, 3140), (sym_test_pragma, 7490), (sym_once_pragma, 7490),
     (sym_must_call_pragma, 7490), (sym_export_pragma, 7490), (sym_pou_pragma, 7194),
     (sym_direct_variable, 7675), (sym_deref_expression, 2373), (sym_variable, 7599),
     (sym_var_access, 2373), (sym_input_decls, 3266), (sym_output_decls, 3266),
     (sym_in_out_decls, 3266), (sym_var_decls, 3266), (sym_temp_var_decls, 3266),
     (sym_external_var_decls, 3248), (sym_global_var_decls, 2947), (sym__func_variables, 2367),
     (sym_func_body, 8496), (sym_method_decl, 3159), (sym_prog_access_decls, 3043),
     (sym_config_init, 3047), (sym_variable_access, 7530), (sym_func_call, 2961),
     (sym_stmt_list, 8165), (sym__stmt, 2024), (sym_assign, 3150), (sym_if_stmt, 3150),
     (sym_case_stmt, 3150), (sym_for_stmt, 3150), (sym_while_stmt, 3150), (sym_repeat_stmt, 3150),
     (sym_raise_stmt, 3150), (sym_try_stmt, 3150), (sym_ERR_clause_outside_try, 3150),
     (sym_begin_path_expression, 2943), (sym_invocation, 2934), (sym_any_invocation, 2935),
     (sym_this_invocation, 2641), (sym_super_invocation, 2641), (sym_super_body_invocation, 2935),
     (sym_path_expression, 2627), (sym_field_expression, 2373), (sym_index_expression, 2373),
     (sym_ladder_diagram, 8165), (sym_fb_diagram, 8165), (aux_sym_func_decl_repeat1, 7194),
     (aux_sym_func_decl_repeat3, 2367), (aux_sym_stmt_list_repeat1, 2024),
     (aux_sym_ladder_diagram_repeat1, 7628), (aux_sym_fb_diagram_repeat1, 7633),
     (sym_identifier, 298), (aux_sym_ERR_unexpected_this_in_path_token1, 304),
     (aux_sym_ERR_unexpected_super_in_path_token1, 306), (sym_line_comment, 3),
     (anon_sym_LBRACE, 308), (aux_sym_test_pragma_token1, 9), (aux_sym_once_pragma_token1, 11),
     (aux_sym_must_call_pragma_token1, 13), (aux_sym_export_pragma_token1, 15),
     (anon_sym_SEMI, 310), (anon_sym_PERCENT, 312), (aux_sym_input_decls_token1, 2094),
     (aux_sym_output_decls_token1, 2096), (aux_sym_in_out_decls_token1, 318),
     (aux_sym_var_decls_token1, 2098), (aux_sym_temp_var_decls_token1, 322),
     (aux_sym_external_var_decls_token1, 324), (aux_sym_global_var_decls_token1, 326),
     (aux_sym_func_decl_token2, 2382), (aux_sym_method_decl_token1, 330),
     (aux_sym_prog_access_decls_token1, 332), (aux_sym_config_init_token1, 336),
     (aux_sym__stmt_token1, 340), (aux_sym__stmt_token2, 340), (aux_sym__stmt_token3, 340),
     (aux_sym_if_stmt_token1, 342), (aux_sym_case_stmt_token1, 344), (aux_sym_for_stmt_token1, 346),
     (aux_sym_while_stmt_token1, 348), (aux_sym_repeat_stmt_token1, 350),
     (aux_sym_raise_stmt_token1, 352), (aux_sym_try_stmt_token1, 354),
     (aux_sym_try_stmt_token2, 356), (aux_sym_catch_clause_token1, 356),
     (aux_sym_finally_clause_token1, 356), (sym_ld_rung, 2102), (sym_fbd_network, 2104),
     (sym_c_style_comment, 3), (sym_pascal_style_comment, 3), (sym_pragma, 3)]"

lemma ts_parse_row_961_scan: "row_scan tokens_63_2 0 ts_parse_row_961 = Some (Suc (Suc (Suc (Suc 0))))"
  unfolding ts_parse_row_961_def by simp

text \<open>Lines 163294 to 163397.\<close>

definition ts_parse_row_962 :: parse_row where
  "ts_parse_row_962 =
    [(sym_ERR_assign_func_call, 7530), (sym_ERR_unexpected_this_in_path, 2372),
     (sym_ERR_unexpected_super_in_path, 2372), (sym_ERR_var_access_not_allowed, 3266),
     (sym_ERR_var_config_not_allowed, 3266), (sym_ERR_var_external_not_allowed, 3266),
     (sym_ERR_var_global_not_allowed, 3266), (sym_ERR_method_decl_in_body, 3150),
     (sym_extern_pragma, 7490), (sym_wasm_pragma, 3150), (sym_warn_pragma, 7490),
     (sym_allow_pragma, 3140), (sym_test_pragma, 7490), (sym_once_pragma, 7490),
     (sym_must_call_pragma, 7490), (sym_export_pragma, 7490), (sym_pou_pragma, 7194),
     (sym_direct_variable, 7675), (sym_deref_expression, 2373), (sym_variable, 7599),
     (sym_var_access, 2373), (sym_input_decls, 3266), (sym_output_decls, 3266),
     (sym_in_out_decls, 3266), (sym_var_decls, 3266), (sym_temp_var_decls, 3266),
     (sym_external_var_decls, 3248), (sym_global_var_decls, 2947), (sym__func_variables, 2367),
     (sym_func_body, 8213), (sym_method_decl, 3159), (sym_prog_access_decls, 3043),
     (sym_config_init, 3047), (sym_variable_access, 7530), (sym_func_call, 2961),
     (sym_stmt_list, 8165), (sym__stmt, 2024), (sym_assign, 3150), (sym_if_stmt, 3150),
     (sym_case_stmt, 3150), (sym_for_stmt, 3150), (sym_while_stmt, 3150), (sym_repeat_stmt, 3150),
     (sym_raise_stmt, 3150), (sym_try_stmt, 3150), (sym_ERR_clause_outside_try, 3150),
     (sym_begin_path_expression, 2943), (sym_invocation, 2934), (sym_any_invocation, 2935),
     (sym_this_invocation, 2641), (sym_super_invocation, 2641), (sym_super_body_invocation, 2935),
     (sym_path_expression, 2627), (sym_field_expression, 2373), (sym_index_expression, 2373),
     (sym_ladder_diagram, 8165), (sym_fb_diagram, 8165), (aux_sym_func_decl_repeat1, 7194),
     (aux_sym_func_decl_repeat3, 2367), (aux_sym_stmt_list_repeat1, 2024),
     (aux_sym_ladder_diagram_repeat1, 7628), (aux_sym_fb_diagram_repeat1, 7633),
     (sym_identifier, 298), (aux_sym_ERR_unexpected_this_in_path_token1, 304),
     (aux_sym_ERR_unexpected_super_in_path_token1, 306), (sym_line_comment, 3),
     (anon_sym_LBRACE, 308), (aux_sym_test_pragma_token1, 9), (aux_sym_once_pragma_token1, 11),
     (aux_sym_must_call_pragma_token1, 13), (aux_sym_export_pragma_token1, 15),
     (anon_sym_SEMI, 310), (anon_sym_PERCENT, 312), (aux_sym_input_decls_token1, 2094),
     (aux_sym_output_decls_token1, 2096), (aux_sym_in_out_decls_token1, 318),
     (aux_sym_var_decls_token1, 2098), (aux_sym_temp_var_decls_token1, 322),
     (aux_sym_external_var_decls_token1, 324), (aux_sym_global_var_decls_token1, 326),
     (aux_sym_func_decl_token2, 2384), (aux_sym_method_decl_token1, 330),
     (aux_sym_prog_access_decls_token1, 332), (aux_sym_config_init_token1, 336),
     (aux_sym__stmt_token1, 340), (aux_sym__stmt_token2, 340), (aux_sym__stmt_token3, 340),
     (aux_sym_if_stmt_token1, 342), (aux_sym_case_stmt_token1, 344), (aux_sym_for_stmt_token1, 346),
     (aux_sym_while_stmt_token1, 348), (aux_sym_repeat_stmt_token1, 350),
     (aux_sym_raise_stmt_token1, 352), (aux_sym_try_stmt_token1, 354),
     (aux_sym_try_stmt_token2, 356), (aux_sym_catch_clause_token1, 356),
     (aux_sym_finally_clause_token1, 356), (sym_ld_rung, 2102), (sym_fbd_network, 2104),
     (sym_c_style_comment, 3), (sym_pascal_style_comment, 3), (sym_pragma, 3)]"

lemma ts_parse_row_962_scan: "row_scan tokens_63_2 0 ts_parse_row_962 = Some (Suc (Suc (Suc (Suc 0))))"
  unfolding ts_parse_row_962_def by simp

text \<open>Lines 163398 to 163501.\<close>

definition ts_parse_row_963 :: parse_row where
  "ts_parse_row_963 =
    [(sym_ERR_assign_func_call, 7530), (sym_ERR_unexpected_this_in_path, 2372),
     (sym_ERR_unexpected_super_in_path, 2372), (sym_ERR_var_access_not_allowed, 3266),
     (sym_ERR_var_config_not_allowed, 3266), (sym_ERR_var_external_not_allowed, 3266),
     (sym_ERR_var_global_not_allowed, 3266), (sym_ERR_method_decl_in_body, 3150),
     (sym_extern_pragma, 7490), (sym_wasm_pragma, 3150), (sym_warn_pragma, 7490),
     (sym_allow_pragma, 3140), (sym_test_pragma, 7490), (sym_once_pragma, 7490),
     (sym_must_call_pragma, 7490), (sym_export_pragma, 7490), (sym_pou_pragma, 7194),
     (sym_direct_variable, 7675), (sym_deref_expression, 2373), (sym_variable, 7599),
     (sym_var_access, 2373), (sym_input_decls, 3266), (sym_output_decls, 3266),
     (sym_in_out_decls, 3266), (sym_var_decls, 3266), (sym_temp_var_decls, 3266),
     (sym_external_var_decls, 3248), (sym_global_var_decls, 2947), (sym__func_variables, 2367),
     (sym_func_body, 8982), (sym_method_decl, 3159), (sym_prog_access_decls, 3043),
     (sym_config_init, 3047), (sym_variable_access, 7530), (sym_func_call, 2961),
     (sym_stmt_list, 8165), (sym__stmt, 2024), (sym_assign, 3150), (sym_if_stmt, 3150),
     (sym_case_stmt, 3150), (sym_for_stmt, 3150), (sym_while_stmt, 3150), (sym_repeat_stmt, 3150),
     (sym_raise_stmt, 3150), (sym_try_stmt, 3150), (sym_ERR_clause_outside_try, 3150),
     (sym_begin_path_expression, 2943), (sym_invocation, 2934), (sym_any_invocation, 2935),
     (sym_this_invocation, 2641), (sym_super_invocation, 2641), (sym_super_body_invocation, 2935),
     (sym_path_expression, 2627), (sym_field_expression, 2373), (sym_index_expression, 2373),
     (sym_ladder_diagram, 8165), (sym_fb_diagram, 8165), (aux_sym_func_decl_repeat1, 7194),
     (aux_sym_func_decl_repeat3, 2367), (aux_sym_stmt_list_repeat1, 2024),
     (aux_sym_ladder_diagram_repeat1, 7628), (aux_sym_fb_diagram_repeat1, 7633),
     (sym_identifier, 298), (aux_sym_ERR_unexpected_this_in_path_token1, 304),
     (aux_sym_ERR_unexpected_super_in_path_token1, 306), (sym_line_comment, 3),
     (anon_sym_LBRACE, 308), (aux_sym_test_pragma_token1, 9), (aux_sym_once_pragma_token1, 11),
     (aux_sym_must_call_pragma_token1, 13), (aux_sym_export_pragma_token1, 15),
     (anon_sym_SEMI, 310), (anon_sym_PERCENT, 312), (aux_sym_input_decls_token1, 2094),
     (aux_sym_output_decls_token1, 2096), (aux_sym_in_out_decls_token1, 318),
     (aux_sym_var_decls_token1, 2098), (aux_sym_temp_var_decls_token1, 322),
     (aux_sym_external_var_decls_token1, 324), (aux_sym_global_var_decls_token1, 326),
     (aux_sym_func_decl_token2, 2386), (aux_sym_method_decl_token1, 330),
     (aux_sym_prog_access_decls_token1, 332), (aux_sym_config_init_token1, 336),
     (aux_sym__stmt_token1, 340), (aux_sym__stmt_token2, 340), (aux_sym__stmt_token3, 340),
     (aux_sym_if_stmt_token1, 342), (aux_sym_case_stmt_token1, 344), (aux_sym_for_stmt_token1, 346),
     (aux_sym_while_stmt_token1, 348), (aux_sym_repeat_stmt_token1, 350),
     (aux_sym_raise_stmt_token1, 352), (aux_sym_try_stmt_token1, 354),
     (aux_sym_try_stmt_token2, 356), (aux_sym_catch_clause_token1, 356),
     (aux_sym_finally_clause_token1, 356), (sym_ld_rung, 2102), (sym_fbd_network, 2104),
     (sym_c_style_comment, 3), (sym_pascal_style_comment, 3), (sym_pragma, 3)]"

lemma ts_parse_row_963_scan: "row_scan tokens_63_2 0 ts_parse_row_963 = Some (Suc (Suc (Suc (Suc 0))))"
  unfolding ts_parse_row_963_def by simp

text \<open>Lines 163502 to 163605.\<close>

definition ts_parse_row_964 :: parse_row where
  "ts_parse_row_964 =
    [(sym_ERR_assign_func_call, 7530), (sym_ERR_unexpected_this_in_path, 2372),
     (sym_ERR_unexpected_super_in_path, 2372), (sym_ERR_var_access_not_allowed, 3196),
     (sym_ERR_var_config_not_allowed, 3196), (sym_ERR_var_external_not_allowed, 3196),
     (sym_ERR_var_global_not_allowed, 3196), (sym_ERR_method_decl_in_body, 3150),
     (sym_extern_pragma, 7490), (sym_wasm_pragma, 3150), (sym_warn_pragma, 7490),
     (sym_allow_pragma, 3140), (sym_test_pragma, 7490), (sym_once_pragma, 7490),
     (sym_must_call_pragma, 7490), (sym_export_pragma, 7490), (sym_pou_pragma, 7194),
     (sym_direct_variable, 7675), (sym_deref_expression, 2373), (sym_variable, 7599),
     (sym_var_access, 2373), (sym_input_decls, 3196), (sym_output_decls, 3196),
     (sym_in_out_decls, 3196), (sym_var_decls, 3196), (sym_temp_var_decls, 3196),
     (sym_external_var_decls, 3197), (sym_global_var_decls, 2947), (sym_func_body, 10098),
     (sym_method_decl, 3159), (sym__method_decl_variables, 1098), (sym_prog_access_decls, 3043),
     (sym_config_init, 3047), (sym_variable_access, 7530), (sym_func_call, 2961),
     (sym_stmt_list, 8165), (sym__stmt, 2024), (sym_assign, 3150), (sym_if_stmt, 3150),
     (sym_case_stmt, 3150), (sym_for_stmt, 3150), (sym_while_stmt, 3150), (sym_repeat_stmt, 3150),
     (sym_raise_stmt, 3150), (sym_try_stmt, 3150), (sym_ERR_clause_outside_try, 3150),
     (sym_begin_path_expression, 2943), (sym_invocation, 2934), (sym_any_invocation, 2935),
     (sym_this_invocation, 2641), (sym_super_invocation, 2641), (sym_super_body_invocation, 2935),
     (sym_path_expression, 2627), (sym_field_expression, 2373), (sym_index_expression, 2373),
     (sym_ladder_diagram, 8165), (sym_fb_diagram, 8165), (aux_sym_func_decl_repeat1, 7194),
     (aux_sym_method_decl_repeat1, 1098), (aux_sym_stmt_list_repeat1, 2024),
     (aux_sym_ladder_diagram_repeat1, 7628), (aux_sym_fb_diagram_repeat1, 7633),
     (sym_identifier, 298), (aux_sym_ERR_unexpected_this_in_path_token1, 304),
     (aux_sym_ERR_unexpected_super_in_path_token1, 306), (sym_line_comment, 3),
     (anon_sym_LBRACE, 308), (aux_sym_test_pragma_token1, 9), (aux_sym_once_pragma_token1, 11),
     (aux_sym_must_call_pragma_token1, 13), (aux_sym_export_pragma_token1, 15),
     (anon_sym_SEMI, 310), (anon_sym_PERCENT, 312), (aux_sym_input_decls_token1, 2094),
     (aux_sym_output_decls_token1, 2096), (aux_sym_in_out_decls_token1, 318),
     (aux_sym_var_decls_token1, 2098), (aux_sym_temp_var_decls_token1, 322),
     (aux_sym_external_var_decls_token1, 324), (aux_sym_global_var_decls_token1, 326),
     (aux_sym_method_decl_token1, 330), (aux_sym_method_decl_token3, 2388),
     (aux_sym_prog_access_decls_token1, 332), (aux_sym_config_init_token1, 336),
     (aux_sym__stmt_token1, 340), (aux_sym__stmt_token2, 340), (aux_sym__stmt_token3, 340),
     (aux_sym_if_stmt_token1, 342), (aux_sym_case_stmt_token1, 344), (aux_sym_for_stmt_token1, 346),
     (aux_sym_while_stmt_token1, 348), (aux_sym_repeat_stmt_token1, 350),
     (aux_sym_raise_stmt_token1, 352), (aux_sym_try_stmt_token1, 354),
     (aux_sym_try_stmt_token2, 356), (aux_sym_catch_clause_token1, 356),
     (aux_sym_finally_clause_token1, 356), (sym_ld_rung, 2102), (sym_fbd_network, 2104),
     (sym_c_style_comment, 3), (sym_pascal_style_comment, 3), (sym_pragma, 3)]"

lemma ts_parse_row_964_scan: "row_scan tokens_63_2 0 ts_parse_row_964 = Some (Suc (Suc (Suc (Suc 0))))"
  unfolding ts_parse_row_964_def by simp

text \<open>Lines 163606 to 163709.\<close>

definition ts_parse_row_965 :: parse_row where
  "ts_parse_row_965 =
    [(sym_ERR_assign_func_call, 7530), (sym_ERR_unexpected_this_in_path, 2372),
     (sym_ERR_unexpected_super_in_path, 2372), (sym_ERR_var_access_not_allowed, 3196),
     (sym_ERR_var_config_not_allowed, 3196), (sym_ERR_var_external_not_allowed, 3196),
     (sym_ERR_var_global_not_allowed, 3196), (sym_ERR_method_decl_in_body, 3150),
     (sym_extern_pragma, 7490), (sym_wasm_pragma, 3150), (sym_warn_pragma, 7490),
     (sym_allow_pragma, 3140), (sym_test_pragma, 7490), (sym_once_pragma, 7490),
     (sym_must_call_pragma, 7490), (sym_export_pragma, 7490), (sym_pou_pragma, 7194),
     (sym_direct_variable, 7675), (sym_deref_expression, 2373), (sym_variable, 7599),
     (sym_var_access, 2373), (sym_input_decls, 3196), (sym_output_decls, 3196),
     (sym_in_out_decls, 3196), (sym_var_decls, 3196), (sym_temp_var_decls, 3196),
     (sym_external_var_decls, 3197), (sym_global_var_decls, 2947), (sym_func_body, 10117),
     (sym_method_decl, 3159), (sym__method_decl_variables, 1099), (sym_prog_access_decls, 3043),
     (sym_config_init, 3047), (sym_variable_access, 7530), (sym_func_call, 2961),
     (sym_stmt_list, 8165), (sym__stmt, 2024), (sym_assign, 3150), (sym_if_stmt, 3150),
     (sym_case_stmt, 3150), (sym_for_stmt, 3150), (sym_while_stmt, 3150), (sym_repeat_stmt, 3150),
     (sym_raise_stmt, 3150), (sym_try_stmt, 3150), (sym_ERR_clause_outside_try, 3150),
     (sym_begin_path_expression, 2943), (sym_invocation, 2934), (sym_any_invocation, 2935),
     (sym_this_invocation, 2641), (sym_super_invocation, 2641), (sym_super_body_invocation, 2935),
     (sym_path_expression, 2627), (sym_field_expression, 2373), (sym_index_expression, 2373),
     (sym_ladder_diagram, 8165), (sym_fb_diagram, 8165), (aux_sym_func_decl_repeat1, 7194),
     (aux_sym_method_decl_repeat1, 1099), (aux_sym_stmt_list_repeat1, 2024),
     (aux_sym_ladder_diagram_repeat1, 7628), (aux_sym_fb_diagram_repeat1, 7633),
     (sym_identifier, 298), (aux_sym_ERR_unexpected_this_in_path_token1, 304),
     (aux_sym_ERR_unexpected_super_in_path_token1, 306), (sym_line_comment, 3),
     (anon_sym_LBRACE, 308), (aux_sym_test_pragma_token1, 9), (aux_sym_once_pragma_token1, 11),
     (aux_sym_must_call_pragma_token1, 13), (aux_sym_export_pragma_token1, 15),
     (anon_sym_SEMI, 310), (anon_sym_PERCENT, 312), (aux_sym_input_decls_token1, 2094),
     (aux_sym_output_decls_token1, 2096), (aux_sym_in_out_decls_token1, 318),
     (aux_sym_var_decls_token1, 2098), (aux_sym_temp_var_decls_token1, 322),
     (aux_sym_external_var_decls_token1, 324), (aux_sym_global_var_decls_token1, 326),
     (aux_sym_method_decl_token1, 330), (aux_sym_method_decl_token3, 2390),
     (aux_sym_prog_access_decls_token1, 332), (aux_sym_config_init_token1, 336),
     (aux_sym__stmt_token1, 340), (aux_sym__stmt_token2, 340), (aux_sym__stmt_token3, 340),
     (aux_sym_if_stmt_token1, 342), (aux_sym_case_stmt_token1, 344), (aux_sym_for_stmt_token1, 346),
     (aux_sym_while_stmt_token1, 348), (aux_sym_repeat_stmt_token1, 350),
     (aux_sym_raise_stmt_token1, 352), (aux_sym_try_stmt_token1, 354),
     (aux_sym_try_stmt_token2, 356), (aux_sym_catch_clause_token1, 356),
     (aux_sym_finally_clause_token1, 356), (sym_ld_rung, 2102), (sym_fbd_network, 2104),
     (sym_c_style_comment, 3), (sym_pascal_style_comment, 3), (sym_pragma, 3)]"

lemma ts_parse_row_965_scan: "row_scan tokens_63_2 0 ts_parse_row_965 = Some (Suc (Suc (Suc (Suc 0))))"
  unfolding ts_parse_row_965_def by simp

text \<open>Lines 163710 to 163813.\<close>

definition ts_parse_row_966 :: parse_row where
  "ts_parse_row_966 =
    [(sym_ERR_assign_func_call, 7530), (sym_ERR_unexpected_this_in_path, 2372),
     (sym_ERR_unexpected_super_in_path, 2372), (sym_ERR_var_access_not_allowed, 3196),
     (sym_ERR_var_config_not_allowed, 3196), (sym_ERR_var_external_not_allowed, 3196),
     (sym_ERR_var_global_not_allowed, 3196), (sym_ERR_method_decl_in_body, 3150),
     (sym_extern_pragma, 7490), (sym_wasm_pragma, 3150), (sym_warn_pragma, 7490),
     (sym_allow_pragma, 3140), (sym_test_pragma, 7490), (sym_once_pragma, 7490),
     (sym_must_call_pragma, 7490), (sym_export_pragma, 7490), (sym_pou_pragma, 7194),
     (sym_direct_variable, 7675), (sym_deref_expression, 2373), (sym_variable, 7599),
     (sym_var_access, 2373), (sym_input_decls, 3196), (sym_output_decls, 3196),
     (sym_in_out_decls, 3196), (sym_var_decls, 3196), (sym_temp_var_decls, 3196),
     (sym_external_var_decls, 3197), (sym_global_var_decls, 2947), (sym_func_body, 10045),
     (sym_method_decl, 3159), (sym__method_decl_variables, 2368), (sym_prog_access_decls, 3043),
     (sym_config_init, 3047), (sym_variable_access, 7530), (sym_func_call, 2961),
     (sym_stmt_list, 8165), (sym__stmt, 2024), (sym_assign, 3150), (sym_if_stmt, 3150),
     (sym_case_stmt, 3150), (sym_for_stmt, 3150), (sym_while_stmt, 3150), (sym_repeat_stmt, 3150),
     (sym_raise_stmt, 3150), (sym_try_stmt, 3150), (sym_ERR_clause_outside_try, 3150),
     (sym_begin_path_expression, 2943), (sym_invocation, 2934), (sym_any_invocation, 2935),
     (sym_this_invocation, 2641), (sym_super_invocation, 2641), (sym_super_body_invocation, 2935),
     (sym_path_expression, 2627), (sym_field_expression, 2373), (sym_index_expression, 2373),
     (sym_ladder_diagram, 8165), (sym_fb_diagram, 8165), (aux_sym_func_decl_repeat1, 7194),
     (aux_sym_method_decl_repeat1, 2368), (aux_sym_stmt_list_repeat1, 2024),
     (aux_sym_ladder_diagram_repeat1, 7628), (aux_sym_fb_diagram_repeat1, 7633),
     (sym_identifier, 298), (aux_sym_ERR_unexpected_this_in_path_token1, 304),
     (aux_sym_ERR_unexpected_super_in_path_token1, 306), (sym_line_comment, 3),
     (anon_sym_LBRACE, 308), (aux_sym_test_pragma_token1, 9), (aux_sym_once_pragma_token1, 11),
     (aux_sym_must_call_pragma_token1, 13), (aux_sym_export_pragma_token1, 15),
     (anon_sym_SEMI, 310), (anon_sym_PERCENT, 312), (aux_sym_input_decls_token1, 2094),
     (aux_sym_output_decls_token1, 2096), (aux_sym_in_out_decls_token1, 318),
     (aux_sym_var_decls_token1, 2098), (aux_sym_temp_var_decls_token1, 322),
     (aux_sym_external_var_decls_token1, 324), (aux_sym_global_var_decls_token1, 326),
     (aux_sym_method_decl_token1, 330), (aux_sym_method_decl_token3, 2392),
     (aux_sym_prog_access_decls_token1, 332), (aux_sym_config_init_token1, 336),
     (aux_sym__stmt_token1, 340), (aux_sym__stmt_token2, 340), (aux_sym__stmt_token3, 340),
     (aux_sym_if_stmt_token1, 342), (aux_sym_case_stmt_token1, 344), (aux_sym_for_stmt_token1, 346),
     (aux_sym_while_stmt_token1, 348), (aux_sym_repeat_stmt_token1, 350),
     (aux_sym_raise_stmt_token1, 352), (aux_sym_try_stmt_token1, 354),
     (aux_sym_try_stmt_token2, 356), (aux_sym_catch_clause_token1, 356),
     (aux_sym_finally_clause_token1, 356), (sym_ld_rung, 2102), (sym_fbd_network, 2104),
     (sym_c_style_comment, 3), (sym_pascal_style_comment, 3), (sym_pragma, 3)]"

lemma ts_parse_row_966_scan: "row_scan tokens_63_2 0 ts_parse_row_966 = Some (Suc (Suc (Suc (Suc 0))))"
  unfolding ts_parse_row_966_def by simp

text \<open>Lines 163814 to 163917.\<close>

definition ts_parse_row_967 :: parse_row where
  "ts_parse_row_967 =
    [(sym_ERR_assign_func_call, 7530), (sym_ERR_unexpected_this_in_path, 2372),
     (sym_ERR_unexpected_super_in_path, 2372), (sym_ERR_var_access_not_allowed, 3196),
     (sym_ERR_var_config_not_allowed, 3196), (sym_ERR_var_external_not_allowed, 3196),
     (sym_ERR_var_global_not_allowed, 3196), (sym_ERR_method_decl_in_body, 3150),
     (sym_extern_pragma, 7490), (sym_wasm_pragma, 3150), (sym_warn_pragma, 7490),
     (sym_allow_pragma, 3140), (sym_test_pragma, 7490), (sym_once_pragma, 7490),
     (sym_must_call_pragma, 7490), (sym_export_pragma, 7490), (sym_pou_pragma, 7194),
     (sym_direct_variable, 7675), (sym_deref_expression, 2373), (sym_variable, 7599),
     (sym_var_access, 2373), (sym_input_decls, 3196), (sym_output_decls, 3196),
     (sym_in_out_decls, 3196), (sym_var_decls, 3196), (sym_temp_var_decls, 3196),
     (sym_external_var_decls, 3197), (sym_global_var_decls, 2947), (sym_func_body, 10062),
     (sym_method_decl, 3159), (sym__method_decl_variables, 991), (sym_prog_access_decls, 3043),
     (sym_config_init, 3047), (sym_variable_access, 7530), (sym_func_call, 2961),
     (sym_stmt_list, 8165), (sym__stmt, 2024), (sym_assign, 3150), (sym_if_stmt, 3150),
     (sym_case_stmt, 3150), (sym_for_stmt, 3150), (sym_while_stmt, 3150), (sym_repeat_stmt, 3150),
     (sym_raise_stmt, 3150), (sym_try_stmt, 3150), (sym_ERR_clause_outside_try, 3150),
     (sym_begin_path_expression, 2943), (sym_invocation, 2934), (sym_any_invocation, 2935),
     (sym_this_invocation, 2641), (sym_super_invocation, 2641), (sym_super_body_invocation, 2935),
     (sym_path_expression, 2627), (sym_field_expression, 2373), (sym_index_expression, 2373),
     (sym_ladder_diagram, 8165), (sym_fb_diagram, 8165), (aux_sym_func_decl_repeat1, 7194),
     (aux_sym_method_decl_repeat1, 991), (aux_sym_stmt_list_repeat1, 2024),
     (aux_sym_ladder_diagram_repeat1, 7628), (aux_sym_fb_diagram_repeat1, 7633),
     (sym_identifier, 298), (aux_sym_ERR_unexpected_this_in_path_token1, 304),
     (aux_sym_ERR_unexpected_super_in_path_token1, 306), (sym_line_comment, 3),
     (anon_sym_LBRACE, 308), (aux_sym_test_pragma_token1, 9), (aux_sym_once_pragma_token1, 11),
     (aux_sym_must_call_pragma_token1, 13), (aux_sym_export_pragma_token1, 15),
     (anon_sym_SEMI, 310), (anon_sym_PERCENT, 312), (aux_sym_input_decls_token1, 2094),
     (aux_sym_output_decls_token1, 2096), (aux_sym_in_out_decls_token1, 318),
     (aux_sym_var_decls_token1, 2098), (aux_sym_temp_var_decls_token1, 322),
     (aux_sym_external_var_decls_token1, 324), (aux_sym_global_var_decls_token1, 326),
     (aux_sym_method_decl_token1, 330), (aux_sym_method_decl_token3, 2394),
     (aux_sym_prog_access_decls_token1, 332), (aux_sym_config_init_token1, 336),
     (aux_sym__stmt_token1, 340), (aux_sym__stmt_token2, 340), (aux_sym__stmt_token3, 340),
     (aux_sym_if_stmt_token1, 342), (aux_sym_case_stmt_token1, 344), (aux_sym_for_stmt_token1, 346),
     (aux_sym_while_stmt_token1, 348), (aux_sym_repeat_stmt_token1, 350),
     (aux_sym_raise_stmt_token1, 352), (aux_sym_try_stmt_token1, 354),
     (aux_sym_try_stmt_token2, 356), (aux_sym_catch_clause_token1, 356),
     (aux_sym_finally_clause_token1, 356), (sym_ld_rung, 2102), (sym_fbd_network, 2104),
     (sym_c_style_comment, 3), (sym_pascal_style_comment, 3), (sym_pragma, 3)]"

lemma ts_parse_row_967_scan: "row_scan tokens_63_2 0 ts_parse_row_967 = Some (Suc (Suc (Suc (Suc 0))))"
  unfolding ts_parse_row_967_def by simp

text \<open>Lines 163918 to 164021.\<close>

definition ts_parse_row_968 :: parse_row where
  "ts_parse_row_968 =
    [(sym_ERR_assign_func_call, 7530), (sym_ERR_unexpected_this_in_path, 2372),
     (sym_ERR_unexpected_super_in_path, 2372), (sym_ERR_var_access_not_allowed, 3196),
     (sym_ERR_var_config_not_allowed, 3196), (sym_ERR_var_external_not_allowed, 3196),
     (sym_ERR_var_global_not_allowed, 3196), (sym_ERR_method_decl_in_body, 3150),
     (sym_extern_pragma, 7490), (sym_wasm_pragma, 3150), (sym_warn_pragma, 7490),
     (sym_allow_pragma, 3140), (sym_test_pragma, 7490), (sym_once_pragma, 7490),
     (sym_must_call_pragma, 7490), (sym_export_pragma, 7490), (sym_pou_pragma, 7194),
     (sym_direct_variable, 7675), (sym_deref_expression, 2373), (sym_variable, 7599),
     (sym_var_access, 2373), (sym_input_decls, 3196), (sym_output_decls, 3196),
     (sym_in_out_decls, 3196), (sym_var_decls, 3196), (sym_temp_var_decls, 3196),
     (sym_external_var_decls, 3197), (sym_global_var_decls, 2947), (sym_func_body, 10100),
     (sym_method_decl, 3159), (sym__method_decl_variables, 2368), (sym_prog_access_decls, 3043),
     (sym_config_init, 3047), (sym_variable_access, 7530), (sym_func_call, 2961),
     (sym_stmt_list, 8165), (sym__stmt, 2024), (sym_assign, 3150), (sym_if_stmt, 3150),
     (sym_case_stmt, 3150), (sym_for_stmt, 3150), (sym_while_stmt, 3150), (sym_repeat_stmt, 3150),
     (sym_raise_stmt, 3150), (sym_try_stmt, 3150), (sym_ERR_clause_outside_try, 3150),
     (sym_begin_path_expression, 2943), (sym_invocation, 2934), (sym_any_invocation, 2935),
     (sym_this_invocation, 2641), (sym_super_invocation, 2641), (sym_super_body_invocation, 2935),
     (sym_path_expression, 2627), (sym_field_expression, 2373), (sym_index_expression, 2373),
     (sym_ladder_diagram, 8165), (sym_fb_diagram, 8165), (aux_sym_func_decl_repeat1, 7194),
     (aux_sym_method_decl_repeat1, 2368), (aux_sym_stmt_list_repeat1, 2024),
     (aux_sym_ladder_diagram_repeat1, 7628), (aux_sym_fb_diagram_repeat1, 7633),
     (sym_identifier, 298), (aux_sym_ERR_unexpected_this_in_path_token1, 304),
     (aux_sym_ERR_unexpected_super_in_path_token1, 306), (sym_line_comment, 3),
     (anon_sym_LBRACE, 308), (aux_sym_test_pragma_token1, 9), (aux_sym_once_pragma_token1, 11),
     (aux_sym_must_call_pragma_token1, 13), (aux_sym_export_pragma_token1, 15),
     (anon_sym_SEMI, 310), (anon_sym_PERCENT, 312), (aux_sym_input_decls_token1, 2094),
     (aux_sym_output_decls_token1, 2096), (aux_sym_in_out_decls_token1, 318),
     (aux_sym_var_decls_token1, 2098), (aux_sym_temp_var_decls_token1, 322),
     (aux_sym_external_var_decls_token1, 324), (aux_sym_global_var_decls_token1, 326),
     (aux_sym_method_decl_token1, 330), (aux_sym_method_decl_token3, 2396),
     (aux_sym_prog_access_decls_token1, 332), (aux_sym_config_init_token1, 336),
     (aux_sym__stmt_token1, 340), (aux_sym__stmt_token2, 340), (aux_sym__stmt_token3, 340),
     (aux_sym_if_stmt_token1, 342), (aux_sym_case_stmt_token1, 344), (aux_sym_for_stmt_token1, 346),
     (aux_sym_while_stmt_token1, 348), (aux_sym_repeat_stmt_token1, 350),
     (aux_sym_raise_stmt_token1, 352), (aux_sym_try_stmt_token1, 354),
     (aux_sym_try_stmt_token2, 356), (aux_sym_catch_clause_token1, 356),
     (aux_sym_finally_clause_token1, 356), (sym_ld_rung, 2102), (sym_fbd_network, 2104),
     (sym_c_style_comment, 3), (sym_pascal_style_comment, 3), (sym_pragma, 3)]"

lemma ts_parse_row_968_scan: "row_scan tokens_63_2 0 ts_parse_row_968 = Some (Suc (Suc (Suc (Suc 0))))"
  unfolding ts_parse_row_968_def by simp

text \<open>Lines 164022 to 164125.\<close>

definition ts_parse_row_969 :: parse_row where
  "ts_parse_row_969 =
    [(sym_ERR_assign_func_call, 7530), (sym_ERR_unexpected_this_in_path, 2372),
     (sym_ERR_unexpected_super_in_path, 2372), (sym_ERR_var_access_not_allowed, 3196),
     (sym_ERR_var_config_not_allowed, 3196), (sym_ERR_var_external_not_allowed, 3196),
     (sym_ERR_var_global_not_allowed, 3196), (sym_ERR_method_decl_in_body, 3150),
     (sym_extern_pragma, 7490), (sym_wasm_pragma, 3150), (sym_warn_pragma, 7490),
     (sym_allow_pragma, 3140), (sym_test_pragma, 7490), (sym_once_pragma, 7490),
     (sym_must_call_pragma, 7490), (sym_export_pragma, 7490), (sym_pou_pragma, 7194),
     (sym_direct_variable, 7675), (sym_deref_expression, 2373), (sym_variable, 7599),
     (sym_var_access, 2373), (sym_input_decls, 3196), (sym_output_decls, 3196),
     (sym_in_out_decls, 3196), (sym_var_decls, 3196), (sym_temp_var_decls, 3196),
     (sym_external_var_decls, 3197), (sym_global_var_decls, 2947), (sym_func_body, 10165),
     (sym_method_decl, 3159), (sym__method_decl_variables, 2368), (sym_prog_access_decls, 3043),
     (sym_config_init, 3047), (sym_variable_access, 7530), (sym_func_call, 2961),
     (sym_stmt_list, 8165), (sym__stmt, 2024), (sym_assign, 3150), (sym_if_stmt, 3150),
     (sym_case_stmt, 3150), (sym_for_stmt, 3150), (sym_while_stmt, 3150), (sym_repeat_stmt, 3150),
     (sym_raise_stmt, 3150), (sym_try_stmt, 3150), (sym_ERR_clause_outside_try, 3150),
     (sym_begin_path_expression, 2943), (sym_invocation, 2934), (sym_any_invocation, 2935),
     (sym_this_invocation, 2641), (sym_super_invocation, 2641), (sym_super_body_invocation, 2935),
     (sym_path_expression, 2627), (sym_field_expression, 2373), (sym_index_expression, 2373),
     (sym_ladder_diagram, 8165), (sym_fb_diagram, 8165), (aux_sym_func_decl_repeat1, 7194),
     (aux_sym_method_decl_repeat1, 2368), (aux_sym_stmt_list_repeat1, 2024),
     (aux_sym_ladder_diagram_repeat1, 7628), (aux_sym_fb_diagram_repeat1, 7633),
     (sym_identifier, 298), (aux_sym_ERR_unexpected_this_in_path_token1, 304),
     (aux_sym_ERR_unexpected_super_in_path_token1, 306), (sym_line_comment, 3),
     (anon_sym_LBRACE, 308), (aux_sym_test_pragma_token1, 9), (aux_sym_once_pragma_token1, 11),
     (aux_sym_must_call_pragma_token1, 13), (aux_sym_export_pragma_token1, 15),
     (anon_sym_SEMI, 310), (anon_sym_PERCENT, 312), (aux_sym_input_decls_token1, 2094),
     (aux_sym_output_decls_token1, 2096), (aux_sym_in_out_decls_token1, 318),
     (aux_sym_var_decls_token1, 2098), (aux_sym_temp_var_decls_token1, 322),
     (aux_sym_external_var_decls_token1, 324), (aux_sym_global_var_decls_token1, 326),
     (aux_sym_method_decl_token1, 330), (aux_sym_method_decl_token3, 2398),
     (aux_sym_prog_access_decls_token1, 332), (aux_sym_config_init_token1, 336),
     (aux_sym__stmt_token1, 340), (aux_sym__stmt_token2, 340), (aux_sym__stmt_token3, 340),
     (aux_sym_if_stmt_token1, 342), (aux_sym_case_stmt_token1, 344), (aux_sym_for_stmt_token1, 346),
     (aux_sym_while_stmt_token1, 348), (aux_sym_repeat_stmt_token1, 350),
     (aux_sym_raise_stmt_token1, 352), (aux_sym_try_stmt_token1, 354),
     (aux_sym_try_stmt_token2, 356), (aux_sym_catch_clause_token1, 356),
     (aux_sym_finally_clause_token1, 356), (sym_ld_rung, 2102), (sym_fbd_network, 2104),
     (sym_c_style_comment, 3), (sym_pascal_style_comment, 3), (sym_pragma, 3)]"

lemma ts_parse_row_969_scan: "row_scan tokens_63_2 0 ts_parse_row_969 = Some (Suc (Suc (Suc (Suc 0))))"
  unfolding ts_parse_row_969_def by simp

text \<open>Lines 164126 to 164229.\<close>

definition ts_parse_row_970 :: parse_row where
  "ts_parse_row_970 =
    [(sym_ERR_assign_func_call, 7530), (sym_ERR_unexpected_this_in_path, 2372),
     (sym_ERR_unexpected_super_in_path, 2372), (sym_ERR_var_access_not_allowed, 3196),
     (sym_ERR_var_config_not_allowed, 3196), (sym_ERR_var_external_not_allowed, 3196),
     (sym_ERR_var_global_not_allowed, 3196), (sym_ERR_method_decl_in_body, 3150),
     (sym_extern_pragma, 7490), (sym_wasm_pragma, 3150), (sym_warn_pragma, 7490),
     (sym_allow_pragma, 3140), (sym_test_pragma, 7490), (sym_once_pragma, 7490),
     (sym_must_call_pragma, 7490), (sym_export_pragma, 7490), (sym_pou_pragma, 7194),
     (sym_direct_variable, 7675), (sym_deref_expression, 2373), (sym_variable, 7599),
     (sym_var_access, 2373), (sym_input_decls, 3196), (sym_output_decls, 3196),
     (sym_in_out_decls, 3196), (sym_var_decls, 3196), (sym_temp_var_decls, 3196),
     (sym_external_var_decls, 3197), (sym_global_var_decls, 2947), (sym_func_body, 10174),
     (sym_method_decl, 3159), (sym__method_decl_variables, 2368), (sym_prog_access_decls, 3043),
     (sym_config_init, 3047), (sym_variable_access, 7530), (sym_func_call, 2961),
     (sym_stmt_list, 8165), (sym__stmt, 2024), (sym_assign, 3150), (sym_if_stmt, 3150),
     (sym_case_stmt, 3150), (sym_for_stmt, 3150), (sym_while_stmt, 3150), (sym_repeat_stmt, 3150),
     (sym_raise_stmt, 3150), (sym_try_stmt, 3150), (sym_ERR_clause_outside_try, 3150),
     (sym_begin_path_expression, 2943), (sym_invocation, 2934), (sym_any_invocation, 2935),
     (sym_this_invocation, 2641), (sym_super_invocation, 2641), (sym_super_body_invocation, 2935),
     (sym_path_expression, 2627), (sym_field_expression, 2373), (sym_index_expression, 2373),
     (sym_ladder_diagram, 8165), (sym_fb_diagram, 8165), (aux_sym_func_decl_repeat1, 7194),
     (aux_sym_method_decl_repeat1, 2368), (aux_sym_stmt_list_repeat1, 2024),
     (aux_sym_ladder_diagram_repeat1, 7628), (aux_sym_fb_diagram_repeat1, 7633),
     (sym_identifier, 298), (aux_sym_ERR_unexpected_this_in_path_token1, 304),
     (aux_sym_ERR_unexpected_super_in_path_token1, 306), (sym_line_comment, 3),
     (anon_sym_LBRACE, 308), (aux_sym_test_pragma_token1, 9), (aux_sym_once_pragma_token1, 11),
     (aux_sym_must_call_pragma_token1, 13), (aux_sym_export_pragma_token1, 15),
     (anon_sym_SEMI, 310), (anon_sym_PERCENT, 312), (aux_sym_input_decls_token1, 2094),
     (aux_sym_output_decls_token1, 2096), (aux_sym_in_out_decls_token1, 318),
     (aux_sym_var_decls_token1, 2098), (aux_sym_temp_var_decls_token1, 322),
     (aux_sym_external_var_decls_token1, 324), (aux_sym_global_var_decls_token1, 326),
     (aux_sym_method_decl_token1, 330), (aux_sym_method_decl_token3, 2400),
     (aux_sym_prog_access_decls_token1, 332), (aux_sym_config_init_token1, 336),
     (aux_sym__stmt_token1, 340), (aux_sym__stmt_token2, 340), (aux_sym__stmt_token3, 340),
     (aux_sym_if_stmt_token1, 342), (aux_sym_case_stmt_token1, 344), (aux_sym_for_stmt_token1, 346),
     (aux_sym_while_stmt_token1, 348), (aux_sym_repeat_stmt_token1, 350),
     (aux_sym_raise_stmt_token1, 352), (aux_sym_try_stmt_token1, 354),
     (aux_sym_try_stmt_token2, 356), (aux_sym_catch_clause_token1, 356),
     (aux_sym_finally_clause_token1, 356), (sym_ld_rung, 2102), (sym_fbd_network, 2104),
     (sym_c_style_comment, 3), (sym_pascal_style_comment, 3), (sym_pragma, 3)]"

lemma ts_parse_row_970_scan: "row_scan tokens_63_2 0 ts_parse_row_970 = Some (Suc (Suc (Suc (Suc 0))))"
  unfolding ts_parse_row_970_def by simp

text \<open>Lines 164230 to 164333.\<close>

definition ts_parse_row_971 :: parse_row where
  "ts_parse_row_971 =
    [(sym_ERR_assign_func_call, 7530), (sym_ERR_unexpected_this_in_path, 2372),
     (sym_ERR_unexpected_super_in_path, 2372), (sym_ERR_var_access_not_allowed, 3196),
     (sym_ERR_var_config_not_allowed, 3196), (sym_ERR_var_external_not_allowed, 3196),
     (sym_ERR_var_global_not_allowed, 3196), (sym_ERR_method_decl_in_body, 3150),
     (sym_extern_pragma, 7490), (sym_wasm_pragma, 3150), (sym_warn_pragma, 7490),
     (sym_allow_pragma, 3140), (sym_test_pragma, 7490), (sym_once_pragma, 7490),
     (sym_must_call_pragma, 7490), (sym_export_pragma, 7490), (sym_pou_pragma, 7194),
     (sym_direct_variable, 7675), (sym_deref_expression, 2373), (sym_variable, 7599),
     (sym_var_access, 2373), (sym_input_decls, 3196), (sym_output_decls, 3196),
     (sym_in_out_decls, 3196), (sym_var_decls, 3196), (sym_temp_var_decls, 3196),
     (sym_external_var_decls, 3197), (sym_global_var_decls, 2947), (sym_func_body, 10017),
     (sym_method_decl, 3159), (sym__method_decl_variables, 2368), (sym_prog_access_decls, 3043),
     (sym_config_init, 3047), (sym_variable_access, 7530), (sym_func_call, 2961),
     (sym_stmt_list, 8165), (sym__stmt, 2024), (sym_assign, 3150), (sym_if_stmt, 3150),
     (sym_case_stmt, 3150), (sym_for_stmt, 3150), (sym_while_stmt, 3150), (sym_repeat_stmt, 3150),
     (sym_raise_stmt, 3150), (sym_try_stmt, 3150), (sym_ERR_clause_outside_try, 3150),
     (sym_begin_path_expression, 2943), (sym_invocation, 2934), (sym_any_invocation, 2935),
     (sym_this_invocation, 2641), (sym_super_invocation, 2641), (sym_super_body_invocation, 2935),
     (sym_path_expression, 2627), (sym_field_expression, 2373), (sym_index_expression, 2373),
     (sym_ladder_diagram, 8165), (sym_fb_diagram, 8165), (aux_sym_func_decl_repeat1, 7194),
     (aux_sym_method_decl_repeat1, 2368), (aux_sym_stmt_list_repeat1, 2024),
     (aux_sym_ladder_diagram_repeat1, 7628), (aux_sym_fb_diagram_repeat1, 7633),
     (sym_identifier, 298), (aux_sym_ERR_unexpected_this_in_path_token1, 304),
     (aux_sym_ERR_unexpected_super_in_path_token1, 306), (sym_line_comment, 3),
     (anon_sym_LBRACE, 308), (aux_sym_test_pragma_token1, 9), (aux_sym_once_pragma_token1, 11),
     (aux_sym_must_call_pragma_token1, 13), (aux_sym_export_pragma_token1, 15),
     (anon_sym_SEMI, 310), (anon_sym_PERCENT, 312), (aux_sym_input_decls_token1, 2094),
     (aux_sym_output_decls_token1, 2096), (aux_sym_in_out_decls_token1, 318),
     (aux_sym_var_decls_token1, 2098), (aux_sym_temp_var_decls_token1, 322),
     (aux_sym_external_var_decls_token1, 324), (aux_sym_global_var_decls_token1, 326),
     (aux_sym_method_decl_token1, 330), (aux_sym_method_decl_token3, 2402),
     (aux_sym_prog_access_decls_token1, 332), (aux_sym_config_init_token1, 336),
     (aux_sym__stmt_token1, 340), (aux_sym__stmt_token2, 340), (aux_sym__stmt_token3, 340),
     (aux_sym_if_stmt_token1, 342), (aux_sym_case_stmt_token1, 344), (aux_sym_for_stmt_token1, 346),
     (aux_sym_while_stmt_token1, 348), (aux_sym_repeat_stmt_token1, 350),
     (aux_sym_raise_stmt_token1, 352), (aux_sym_try_stmt_token1, 354),
     (aux_sym_try_stmt_token2, 356), (aux_sym_catch_clause_token1, 356),
     (aux_sym_finally_clause_token1, 356), (sym_ld_rung, 2102), (sym_fbd_network, 2104),
     (sym_c_style_comment, 3), (sym_pascal_style_comment, 3), (sym_pragma, 3)]"

lemma ts_parse_row_971_scan: "row_scan tokens_63_2 0 ts_parse_row_971 = Some (Suc (Suc (Suc (Suc 0))))"
  unfolding ts_parse_row_971_def by simp

text \<open>Lines 164334 to 164437.\<close>

definition ts_parse_row_972 :: parse_row where
  "ts_parse_row_972 =
    [(sym_ERR_assign_func_call, 7530), (sym_ERR_unexpected_this_in_path, 2372),
     (sym_ERR_unexpected_super_in_path, 2372), (sym_ERR_var_access_not_allowed, 3196),
     (sym_ERR_var_config_not_allowed, 3196), (sym_ERR_var_external_not_allowed, 3196),
     (sym_ERR_var_global_not_allowed, 3196), (sym_ERR_method_decl_in_body, 3150),
     (sym_extern_pragma, 7490), (sym_wasm_pragma, 3150), (sym_warn_pragma, 7490),
     (sym_allow_pragma, 3140), (sym_test_pragma, 7490), (sym_once_pragma, 7490),
     (sym_must_call_pragma, 7490), (sym_export_pragma, 7490), (sym_pou_pragma, 7194),
     (sym_direct_variable, 7675), (sym_deref_expression, 2373), (sym_variable, 7599),
     (sym_var_access, 2373), (sym_input_decls, 3196), (sym_output_decls, 3196),
     (sym_in_out_decls, 3196), (sym_var_decls, 3196), (sym_temp_var_decls, 3196),
     (sym_external_var_decls, 3197), (sym_global_var_decls, 2947), (sym_func_body, 10270),
     (sym_method_decl, 3159), (sym__method_decl_variables, 2368), (sym_prog_access_decls, 3043),
     (sym_config_init, 3047), (sym_variable_access, 7530), (sym_func_call, 2961),
     (sym_stmt_list, 8165), (sym__stmt, 2024), (sym_assign, 3150), (sym_if_stmt, 3150),
     (sym_case_stmt, 3150), (sym_for_stmt, 3150), (sym_while_stmt, 3150), (sym_repeat_stmt, 3150),
     (sym_raise_stmt, 3150), (sym_try_stmt, 3150), (sym_ERR_clause_outside_try, 3150),
     (sym_begin_path_expression, 2943), (sym_invocation, 2934), (sym_any_invocation, 2935),
     (sym_this_invocation, 2641), (sym_super_invocation, 2641), (sym_super_body_invocation, 2935),
     (sym_path_expression, 2627), (sym_field_expression, 2373), (sym_index_expression, 2373),
     (sym_ladder_diagram, 8165), (sym_fb_diagram, 8165), (aux_sym_func_decl_repeat1, 7194),
     (aux_sym_method_decl_repeat1, 2368), (aux_sym_stmt_list_repeat1, 2024),
     (aux_sym_ladder_diagram_repeat1, 7628), (aux_sym_fb_diagram_repeat1, 7633),
     (sym_identifier, 298), (aux_sym_ERR_unexpected_this_in_path_token1, 304),
     (aux_sym_ERR_unexpected_super_in_path_token1, 306), (sym_line_comment, 3),
     (anon_sym_LBRACE, 308), (aux_sym_test_pragma_token1, 9), (aux_sym_once_pragma_token1, 11),
     (aux_sym_must_call_pragma_token1, 13), (aux_sym_export_pragma_token1, 15),
     (anon_sym_SEMI, 310), (anon_sym_PERCENT, 312), (aux_sym_input_decls_token1, 2094),
     (aux_sym_output_decls_token1, 2096), (aux_sym_in_out_decls_token1, 318),
     (aux_sym_var_decls_token1, 2098), (aux_sym_temp_var_decls_token1, 322),
     (aux_sym_external_var_decls_token1, 324), (aux_sym_global_var_decls_token1, 326),
     (aux_sym_method_decl_token1, 330), (aux_sym_method_decl_token3, 2404),
     (aux_sym_prog_access_decls_token1, 332), (aux_sym_config_init_token1, 336),
     (aux_sym__stmt_token1, 340), (aux_sym__stmt_token2, 340), (aux_sym__stmt_token3, 340),
     (aux_sym_if_stmt_token1, 342), (aux_sym_case_stmt_token1, 344), (aux_sym_for_stmt_token1, 346),
     (aux_sym_while_stmt_token1, 348), (aux_sym_repeat_stmt_token1, 350),
     (aux_sym_raise_stmt_token1, 352), (aux_sym_try_stmt_token1, 354),
     (aux_sym_try_stmt_token2, 356), (aux_sym_catch_clause_token1, 356),
     (aux_sym_finally_clause_token1, 356), (sym_ld_rung, 2102), (sym_fbd_network, 2104),
     (sym_c_style_comment, 3), (sym_pascal_style_comment, 3), (sym_pragma, 3)]"

lemma ts_parse_row_972_scan: "row_scan tokens_63_2 0 ts_parse_row_972 = Some (Suc (Suc (Suc (Suc 0))))"
  unfolding ts_parse_row_972_def by simp

text \<open>Lines 164438 to 164541.\<close>

definition ts_parse_row_973 :: parse_row where
  "ts_parse_row_973 =
    [(sym_ERR_assign_func_call, 7530), (sym_ERR_unexpected_this_in_path, 2372),
     (sym_ERR_unexpected_super_in_path, 2372), (sym_ERR_var_access_not_allowed, 3196),
     (sym_ERR_var_config_not_allowed, 3196), (sym_ERR_var_external_not_allowed, 3196),
     (sym_ERR_var_global_not_allowed, 3196), (sym_ERR_method_decl_in_body, 3150),
     (sym_extern_pragma, 7490), (sym_wasm_pragma, 3150), (sym_warn_pragma, 7490),
     (sym_allow_pragma, 3140), (sym_test_pragma, 7490), (sym_once_pragma, 7490),
     (sym_must_call_pragma, 7490), (sym_export_pragma, 7490), (sym_pou_pragma, 7194),
     (sym_direct_variable, 7675), (sym_deref_expression, 2373), (sym_variable, 7599),
     (sym_var_access, 2373), (sym_input_decls, 3196), (sym_output_decls, 3196),
     (sym_in_out_decls, 3196), (sym_var_decls, 3196), (sym_temp_var_decls, 3196),
     (sym_external_var_decls, 3197), (sym_global_var_decls, 2947), (sym_func_body, 10109),
     (sym_method_decl, 3159), (sym__method_decl_variables, 2368), (sym_prog_access_decls, 3043),
     (sym_config_init, 3047), (sym_variable_access, 7530), (sym_func_call, 2961),
     (sym_stmt_list, 8165), (sym__stmt, 2024), (sym_assign, 3150), (sym_if_stmt, 3150),
     (sym_case_stmt, 3150), (sym_for_stmt, 3150), (sym_while_stmt, 3150), (sym_repeat_stmt, 3150),
     (sym_raise_stmt, 3150), (sym_try_stmt, 3150), (sym_ERR_clause_outside_try, 3150),
     (sym_begin_path_expression, 2943), (sym_invocation, 2934), (sym_any_invocation, 2935),
     (sym_this_invocation, 2641), (sym_super_invocation, 2641), (sym_super_body_invocation, 2935),
     (sym_path_expression, 2627), (sym_field_expression, 2373), (sym_index_expression, 2373),
     (sym_ladder_diagram, 8165), (sym_fb_diagram, 8165), (aux_sym_func_decl_repeat1, 7194),
     (aux_sym_method_decl_repeat1, 2368), (aux_sym_stmt_list_repeat1, 2024),
     (aux_sym_ladder_diagram_repeat1, 7628), (aux_sym_fb_diagram_repeat1, 7633),
     (sym_identifier, 298), (aux_sym_ERR_unexpected_this_in_path_token1, 304),
     (aux_sym_ERR_unexpected_super_in_path_token1, 306), (sym_line_comment, 3),
     (anon_sym_LBRACE, 308), (aux_sym_test_pragma_token1, 9), (aux_sym_once_pragma_token1, 11),
     (aux_sym_must_call_pragma_token1, 13), (aux_sym_export_pragma_token1, 15),
     (anon_sym_SEMI, 310), (anon_sym_PERCENT, 312), (aux_sym_input_decls_token1, 2094),
     (aux_sym_output_decls_token1, 2096), (aux_sym_in_out_decls_token1, 318),
     (aux_sym_var_decls_token1, 2098), (aux_sym_temp_var_decls_token1, 322),
     (aux_sym_external_var_decls_token1, 324), (aux_sym_global_var_decls_token1, 326),
     (aux_sym_method_decl_token1, 330), (aux_sym_method_decl_token3, 2406),
     (aux_sym_prog_access_decls_token1, 332), (aux_sym_config_init_token1, 336),
     (aux_sym__stmt_token1, 340), (aux_sym__stmt_token2, 340), (aux_sym__stmt_token3, 340),
     (aux_sym_if_stmt_token1, 342), (aux_sym_case_stmt_token1, 344), (aux_sym_for_stmt_token1, 346),
     (aux_sym_while_stmt_token1, 348), (aux_sym_repeat_stmt_token1, 350),
     (aux_sym_raise_stmt_token1, 352), (aux_sym_try_stmt_token1, 354),
     (aux_sym_try_stmt_token2, 356), (aux_sym_catch_clause_token1, 356),
     (aux_sym_finally_clause_token1, 356), (sym_ld_rung, 2102), (sym_fbd_network, 2104),
     (sym_c_style_comment, 3), (sym_pascal_style_comment, 3), (sym_pragma, 3)]"

lemma ts_parse_row_973_scan: "row_scan tokens_63_2 0 ts_parse_row_973 = Some (Suc (Suc (Suc (Suc 0))))"
  unfolding ts_parse_row_973_def by simp

text \<open>Lines 164542 to 164645.\<close>

definition ts_parse_row_974 :: parse_row where
  "ts_parse_row_974 =
    [(sym_ERR_assign_func_call, 7530), (sym_ERR_unexpected_this_in_path, 2372),
     (sym_ERR_unexpected_super_in_path, 2372), (sym_ERR_var_access_not_allowed, 3196),
     (sym_ERR_var_config_not_allowed, 3196), (sym_ERR_var_external_not_allowed, 3196),
     (sym_ERR_var_global_not_allowed, 3196), (sym_ERR_method_decl_in_body, 3150),
     (sym_extern_pragma, 7490), (sym_wasm_pragma, 3150), (sym_warn_pragma, 7490),
     (sym_allow_pragma, 3140), (sym_test_pragma, 7490), (sym_once_pragma, 7490),
     (sym_must_call_pragma, 7490), (sym_export_pragma, 7490), (sym_pou_pragma, 7194),
     (sym_direct_variable, 7675), (sym_deref_expression, 2373), (sym_variable, 7599),
     (sym_var_access, 2373), (sym_input_decls, 3196), (sym_output_decls, 3196),
     (sym_in_out_decls, 3196), (sym_var_decls, 3196), (sym_temp_var_decls, 3196),
     (sym_external_var_decls, 3197), (sym_global_var_decls, 2947), (sym_func_body, 10277),
     (sym_method_decl, 3159), (sym__method_decl_variables, 2368), (sym_prog_access_decls, 3043),
     (sym_config_init, 3047), (sym_variable_access, 7530), (sym_func_call, 2961),
     (sym_stmt_list, 8165), (sym__stmt, 2024), (sym_assign, 3150), (sym_if_stmt, 3150),
     (sym_case_stmt, 3150), (sym_for_stmt, 3150), (sym_while_stmt, 3150), (sym_repeat_stmt, 3150),
     (sym_raise_stmt, 3150), (sym_try_stmt, 3150), (sym_ERR_clause_outside_try, 3150),
     (sym_begin_path_expression, 2943), (sym_invocation, 2934), (sym_any_invocation, 2935),
     (sym_this_invocation, 2641), (sym_super_invocation, 2641), (sym_super_body_invocation, 2935),
     (sym_path_expression, 2627), (sym_field_expression, 2373), (sym_index_expression, 2373),
     (sym_ladder_diagram, 8165), (sym_fb_diagram, 8165), (aux_sym_func_decl_repeat1, 7194),
     (aux_sym_method_decl_repeat1, 2368), (aux_sym_stmt_list_repeat1, 2024),
     (aux_sym_ladder_diagram_repeat1, 7628), (aux_sym_fb_diagram_repeat1, 7633),
     (sym_identifier, 298), (aux_sym_ERR_unexpected_this_in_path_token1, 304),
     (aux_sym_ERR_unexpected_super_in_path_token1, 306), (sym_line_comment, 3),
     (anon_sym_LBRACE, 308), (aux_sym_test_pragma_token1, 9), (aux_sym_once_pragma_token1, 11),
     (aux_sym_must_call_pragma_token1, 13), (aux_sym_export_pragma_token1, 15),
     (anon_sym_SEMI, 310), (anon_sym_PERCENT, 312), (aux_sym_input_decls_token1, 2094),
     (aux_sym_output_decls_token1, 2096), (aux_sym_in_out_decls_token1, 318),
     (aux_sym_var_decls_token1, 2098), (aux_sym_temp_var_decls_token1, 322),
     (aux_sym_external_var_decls_token1, 324), (aux_sym_global_var_decls_token1, 326),
     (aux_sym_method_decl_token1, 330), (aux_sym_method_decl_token3, 2408),
     (aux_sym_prog_access_decls_token1, 332), (aux_sym_config_init_token1, 336),
     (aux_sym__stmt_token1, 340), (aux_sym__stmt_token2, 340), (aux_sym__stmt_token3, 340),
     (aux_sym_if_stmt_token1, 342), (aux_sym_case_stmt_token1, 344), (aux_sym_for_stmt_token1, 346),
     (aux_sym_while_stmt_token1, 348), (aux_sym_repeat_stmt_token1, 350),
     (aux_sym_raise_stmt_token1, 352), (aux_sym_try_stmt_token1, 354),
     (aux_sym_try_stmt_token2, 356), (aux_sym_catch_clause_token1, 356),
     (aux_sym_finally_clause_token1, 356), (sym_ld_rung, 2102), (sym_fbd_network, 2104),
     (sym_c_style_comment, 3), (sym_pascal_style_comment, 3), (sym_pragma, 3)]"

lemma ts_parse_row_974_scan: "row_scan tokens_63_2 0 ts_parse_row_974 = Some (Suc (Suc (Suc (Suc 0))))"
  unfolding ts_parse_row_974_def by simp

text \<open>Lines 164646 to 164749.\<close>

definition ts_parse_row_975 :: parse_row where
  "ts_parse_row_975 =
    [(sym_ERR_assign_func_call, 7530), (sym_ERR_unexpected_this_in_path, 2372),
     (sym_ERR_unexpected_super_in_path, 2372), (sym_ERR_var_access_not_allowed, 3266),
     (sym_ERR_var_config_not_allowed, 3266), (sym_ERR_var_external_not_allowed, 3266),
     (sym_ERR_var_global_not_allowed, 3266), (sym_ERR_method_decl_in_body, 3150),
     (sym_extern_pragma, 7490), (sym_wasm_pragma, 3150), (sym_warn_pragma, 7490),
     (sym_allow_pragma, 3140), (sym_test_pragma, 7490), (sym_once_pragma, 7490),
     (sym_must_call_pragma, 7490), (sym_export_pragma, 7490), (sym_pou_pragma, 7194),
     (sym_direct_variable, 7675), (sym_deref_expression, 2373), (sym_variable, 7599),
     (sym_var_access, 2373), (sym_input_decls, 3266), (sym_output_decls, 3266),
     (sym_in_out_decls, 3266), (sym_var_decls, 3266), (sym_temp_var_decls, 3266),
     (sym_external_var_decls, 3248), (sym_global_var_decls, 2947), (sym__func_variables, 2367),
     (sym_func_body, 10330), (sym_method_decl, 3159), (sym_prog_access_decls, 3043),
     (sym_config_init, 3047), (sym_variable_access, 7530), (sym_func_call, 2961),
     (sym_stmt_list, 8165), (sym__stmt, 2024), (sym_assign, 3150), (sym_if_stmt, 3150),
     (sym_case_stmt, 3150), (sym_for_stmt, 3150), (sym_while_stmt, 3150), (sym_repeat_stmt, 3150),
     (sym_raise_stmt, 3150), (sym_try_stmt, 3150), (sym_ERR_clause_outside_try, 3150),
     (sym_begin_path_expression, 2943), (sym_invocation, 2934), (sym_any_invocation, 2935),
     (sym_this_invocation, 2641), (sym_super_invocation, 2641), (sym_super_body_invocation, 2935),
     (sym_path_expression, 2627), (sym_field_expression, 2373), (sym_index_expression, 2373),
     (sym_ladder_diagram, 8165), (sym_fb_diagram, 8165), (aux_sym_func_decl_repeat1, 7194),
     (aux_sym_func_decl_repeat3, 2367), (aux_sym_stmt_list_repeat1, 2024),
     (aux_sym_ladder_diagram_repeat1, 7628), (aux_sym_fb_diagram_repeat1, 7633),
     (sym_identifier, 298), (aux_sym_ERR_unexpected_this_in_path_token1, 304),
     (aux_sym_ERR_unexpected_super_in_path_token1, 306), (sym_line_comment, 3),
     (anon_sym_LBRACE, 308), (aux_sym_test_pragma_token1, 9), (aux_sym_once_pragma_token1, 11),
     (aux_sym_must_call_pragma_token1, 13), (aux_sym_export_pragma_token1, 15),
     (anon_sym_SEMI, 310), (anon_sym_PERCENT, 312), (aux_sym_input_decls_token1, 2094),
     (aux_sym_output_decls_token1, 2096), (aux_sym_in_out_decls_token1, 318),
     (aux_sym_var_decls_token1, 2098), (aux_sym_temp_var_decls_token1, 322),
     (aux_sym_external_var_decls_token1, 324), (aux_sym_global_var_decls_token1, 326),
     (aux_sym_func_decl_token2, 2410), (aux_sym_method_decl_token1, 330),
     (aux_sym_prog_access_decls_token1, 332), (aux_sym_config_init_token1, 336),
     (aux_sym__stmt_token1, 340), (aux_sym__stmt_token2, 340), (aux_sym__stmt_token3, 340),
     (aux_sym_if_stmt_token1, 342), (aux_sym_case_stmt_token1, 344), (aux_sym_for_stmt_token1, 346),
     (aux_sym_while_stmt_token1, 348), (aux_sym_repeat_stmt_token1, 350),
     (aux_sym_raise_stmt_token1, 352), (aux_sym_try_stmt_token1, 354),
     (aux_sym_try_stmt_token2, 356), (aux_sym_catch_clause_token1, 356),
     (aux_sym_finally_clause_token1, 356), (sym_ld_rung, 2102), (sym_fbd_network, 2104),
     (sym_c_style_comment, 3), (sym_pascal_style_comment, 3), (sym_pragma, 3)]"

lemma ts_parse_row_975_scan: "row_scan tokens_63_2 0 ts_parse_row_975 = Some (Suc (Suc (Suc (Suc 0))))"
  unfolding ts_parse_row_975_def by simp

text \<open>Lines 164750 to 164853.\<close>

definition ts_parse_row_976 :: parse_row where
  "ts_parse_row_976 =
    [(sym_ERR_assign_func_call, 7530), (sym_ERR_unexpected_this_in_path, 2372),
     (sym_ERR_unexpected_super_in_path, 2372), (sym_ERR_var_access_not_allowed, 3196),
     (sym_ERR_var_config_not_allowed, 3196), (sym_ERR_var_external_not_allowed, 3196),
     (sym_ERR_var_global_not_allowed, 3196), (sym_ERR_method_decl_in_body, 3150),
     (sym_extern_pragma, 7490), (sym_wasm_pragma, 3150), (sym_warn_pragma, 7490),
     (sym_allow_pragma, 3140), (sym_test_pragma, 7490), (sym_once_pragma, 7490),
     (sym_must_call_pragma, 7490), (sym_export_pragma, 7490), (sym_pou_pragma, 7194),
     (sym_direct_variable, 7675), (sym_deref_expression, 2373), (sym_variable, 7599),
     (sym_var_access, 2373), (sym_input_decls, 3196), (sym_output_decls, 3196),
     (sym_in_out_decls, 3196), (sym_var_decls, 3196), (sym_temp_var_decls, 3196),
     (sym_external_var_decls, 3197), (sym_global_var_decls, 2947), (sym_func_body, 10285),
     (sym_method_decl, 3159), (sym__method_decl_variables, 1103), (sym_prog_access_decls, 3043),
     (sym_config_init, 3047), (sym_variable_access, 7530), (sym_func_call, 2961),
     (sym_stmt_list, 8165), (sym__stmt, 2024), (sym_assign, 3150), (sym_if_stmt, 3150),
     (sym_case_stmt, 3150), (sym_for_stmt, 3150), (sym_while_stmt, 3150), (sym_repeat_stmt, 3150),
     (sym_raise_stmt, 3150), (sym_try_stmt, 3150), (sym_ERR_clause_outside_try, 3150),
     (sym_begin_path_expression, 2943), (sym_invocation, 2934), (sym_any_invocation, 2935),
     (sym_this_invocation, 2641), (sym_super_invocation, 2641), (sym_super_body_invocation, 2935),
     (sym_path_expression, 2627), (sym_field_expression, 2373), (sym_index_expression, 2373),
     (sym_ladder_diagram, 8165), (sym_fb_diagram, 8165), (aux_sym_func_decl_repeat1, 7194),
     (aux_sym_method_decl_repeat1, 1103), (aux_sym_stmt_list_repeat1, 2024),
     (aux_sym_ladder_diagram_repeat1, 7628), (aux_sym_fb_diagram_repeat1, 7633),
     (sym_identifier, 298), (aux_sym_ERR_unexpected_this_in_path_token1, 304),
     (aux_sym_ERR_unexpected_super_in_path_token1, 306), (sym_line_comment, 3),
     (anon_sym_LBRACE, 308), (aux_sym_test_pragma_token1, 9), (aux_sym_once_pragma_token1, 11),
     (aux_sym_must_call_pragma_token1, 13), (aux_sym_export_pragma_token1, 15),
     (anon_sym_SEMI, 310), (anon_sym_PERCENT, 312), (aux_sym_input_decls_token1, 2094),
     (aux_sym_output_decls_token1, 2096), (aux_sym_in_out_decls_token1, 318),
     (aux_sym_var_decls_token1, 2098), (aux_sym_temp_var_decls_token1, 322),
     (aux_sym_external_var_decls_token1, 324), (aux_sym_global_var_decls_token1, 326),
     (aux_sym_method_decl_token1, 330), (aux_sym_method_decl_token3, 2412),
     (aux_sym_prog_access_decls_token1, 332), (aux_sym_config_init_token1, 336),
     (aux_sym__stmt_token1, 340), (aux_sym__stmt_token2, 340), (aux_sym__stmt_token3, 340),
     (aux_sym_if_stmt_token1, 342), (aux_sym_case_stmt_token1, 344), (aux_sym_for_stmt_token1, 346),
     (aux_sym_while_stmt_token1, 348), (aux_sym_repeat_stmt_token1, 350),
     (aux_sym_raise_stmt_token1, 352), (aux_sym_try_stmt_token1, 354),
     (aux_sym_try_stmt_token2, 356), (aux_sym_catch_clause_token1, 356),
     (aux_sym_finally_clause_token1, 356), (sym_ld_rung, 2102), (sym_fbd_network, 2104),
     (sym_c_style_comment, 3), (sym_pascal_style_comment, 3), (sym_pragma, 3)]"

lemma ts_parse_row_976_scan: "row_scan tokens_63_2 0 ts_parse_row_976 = Some (Suc (Suc (Suc (Suc 0))))"
  unfolding ts_parse_row_976_def by simp

text \<open>Lines 164854 to 164957.\<close>

definition ts_parse_row_977 :: parse_row where
  "ts_parse_row_977 =
    [(sym_ERR_assign_func_call, 7530), (sym_ERR_unexpected_this_in_path, 2372),
     (sym_ERR_unexpected_super_in_path, 2372), (sym_ERR_var_access_not_allowed, 3196),
     (sym_ERR_var_config_not_allowed, 3196), (sym_ERR_var_external_not_allowed, 3196),
     (sym_ERR_var_global_not_allowed, 3196), (sym_ERR_method_decl_in_body, 3150),
     (sym_extern_pragma, 7490), (sym_wasm_pragma, 3150), (sym_warn_pragma, 7490),
     (sym_allow_pragma, 3140), (sym_test_pragma, 7490), (sym_once_pragma, 7490),
     (sym_must_call_pragma, 7490), (sym_export_pragma, 7490), (sym_pou_pragma, 7194),
     (sym_direct_variable, 7675), (sym_deref_expression, 2373), (sym_variable, 7599),
     (sym_var_access, 2373), (sym_input_decls, 3196), (sym_output_decls, 3196),
     (sym_in_out_decls, 3196), (sym_var_decls, 3196), (sym_temp_var_decls, 3196),
     (sym_external_var_decls, 3197), (sym_global_var_decls, 2947), (sym_func_body, 10141),
     (sym_method_decl, 3159), (sym__method_decl_variables, 2368), (sym_prog_access_decls, 3043),
     (sym_config_init, 3047), (sym_variable_access, 7530), (sym_func_call, 2961),
     (sym_stmt_list, 8165), (sym__stmt, 2024), (sym_assign, 3150), (sym_if_stmt, 3150),
     (sym_case_stmt, 3150), (sym_for_stmt, 3150), (sym_while_stmt, 3150), (sym_repeat_stmt, 3150),
     (sym_raise_stmt, 3150), (sym_try_stmt, 3150), (sym_ERR_clause_outside_try, 3150),
     (sym_begin_path_expression, 2943), (sym_invocation, 2934), (sym_any_invocation, 2935),
     (sym_this_invocation, 2641), (sym_super_invocation, 2641), (sym_super_body_invocation, 2935),
     (sym_path_expression, 2627), (sym_field_expression, 2373), (sym_index_expression, 2373),
     (sym_ladder_diagram, 8165), (sym_fb_diagram, 8165), (aux_sym_func_decl_repeat1, 7194),
     (aux_sym_method_decl_repeat1, 2368), (aux_sym_stmt_list_repeat1, 2024),
     (aux_sym_ladder_diagram_repeat1, 7628), (aux_sym_fb_diagram_repeat1, 7633),
     (sym_identifier, 298), (aux_sym_ERR_unexpected_this_in_path_token1, 304),
     (aux_sym_ERR_unexpected_super_in_path_token1, 306), (sym_line_comment, 3),
     (anon_sym_LBRACE, 308), (aux_sym_test_pragma_token1, 9), (aux_sym_once_pragma_token1, 11),
     (aux_sym_must_call_pragma_token1, 13), (aux_sym_export_pragma_token1, 15),
     (anon_sym_SEMI, 310), (anon_sym_PERCENT, 312), (aux_sym_input_decls_token1, 2094),
     (aux_sym_output_decls_token1, 2096), (aux_sym_in_out_decls_token1, 318),
     (aux_sym_var_decls_token1, 2098), (aux_sym_temp_var_decls_token1, 322),
     (aux_sym_external_var_decls_token1, 324), (aux_sym_global_var_decls_token1, 326),
     (aux_sym_method_decl_token1, 330), (aux_sym_method_decl_token3, 2414),
     (aux_sym_prog_access_decls_token1, 332), (aux_sym_config_init_token1, 336),
     (aux_sym__stmt_token1, 340), (aux_sym__stmt_token2, 340), (aux_sym__stmt_token3, 340),
     (aux_sym_if_stmt_token1, 342), (aux_sym_case_stmt_token1, 344), (aux_sym_for_stmt_token1, 346),
     (aux_sym_while_stmt_token1, 348), (aux_sym_repeat_stmt_token1, 350),
     (aux_sym_raise_stmt_token1, 352), (aux_sym_try_stmt_token1, 354),
     (aux_sym_try_stmt_token2, 356), (aux_sym_catch_clause_token1, 356),
     (aux_sym_finally_clause_token1, 356), (sym_ld_rung, 2102), (sym_fbd_network, 2104),
     (sym_c_style_comment, 3), (sym_pascal_style_comment, 3), (sym_pragma, 3)]"

lemma ts_parse_row_977_scan: "row_scan tokens_63_2 0 ts_parse_row_977 = Some (Suc (Suc (Suc (Suc 0))))"
  unfolding ts_parse_row_977_def by simp

text \<open>Lines 164958 to 165061.\<close>

definition ts_parse_row_978 :: parse_row where
  "ts_parse_row_978 =
    [(sym_ERR_assign_func_call, 7530), (sym_ERR_unexpected_this_in_path, 2372),
     (sym_ERR_unexpected_super_in_path, 2372), (sym_ERR_var_access_not_allowed, 3196),
     (sym_ERR_var_config_not_allowed, 3196), (sym_ERR_var_external_not_allowed, 3196),
     (sym_ERR_var_global_not_allowed, 3196), (sym_ERR_method_decl_in_body, 3150),
     (sym_extern_pragma, 7490), (sym_wasm_pragma, 3150), (sym_warn_pragma, 7490),
     (sym_allow_pragma, 3140), (sym_test_pragma, 7490), (sym_once_pragma, 7490),
     (sym_must_call_pragma, 7490), (sym_export_pragma, 7490), (sym_pou_pragma, 7194),
     (sym_direct_variable, 7675), (sym_deref_expression, 2373), (sym_variable, 7599),
     (sym_var_access, 2373), (sym_input_decls, 3196), (sym_output_decls, 3196),
     (sym_in_out_decls, 3196), (sym_var_decls, 3196), (sym_temp_var_decls, 3196),
     (sym_external_var_decls, 3197), (sym_global_var_decls, 2947), (sym_func_body, 10143),
     (sym_method_decl, 3159), (sym__method_decl_variables, 2368), (sym_prog_access_decls, 3043),
     (sym_config_init, 3047), (sym_variable_access, 7530), (sym_func_call, 2961),
     (sym_stmt_list, 8165), (sym__stmt, 2024), (sym_assign, 3150), (sym_if_stmt, 3150),
     (sym_case_stmt, 3150), (sym_for_stmt, 3150), (sym_while_stmt, 3150), (sym_repeat_stmt, 3150),
     (sym_raise_stmt, 3150), (sym_try_stmt, 3150), (sym_ERR_clause_outside_try, 3150),
     (sym_begin_path_expression, 2943), (sym_invocation, 2934), (sym_any_invocation, 2935),
     (sym_this_invocation, 2641), (sym_super_invocation, 2641), (sym_super_body_invocation, 2935),
     (sym_path_expression, 2627), (sym_field_expression, 2373), (sym_index_expression, 2373),
     (sym_ladder_diagram, 8165), (sym_fb_diagram, 8165), (aux_sym_func_decl_repeat1, 7194),
     (aux_sym_method_decl_repeat1, 2368), (aux_sym_stmt_list_repeat1, 2024),
     (aux_sym_ladder_diagram_repeat1, 7628), (aux_sym_fb_diagram_repeat1, 7633),
     (sym_identifier, 298), (aux_sym_ERR_unexpected_this_in_path_token1, 304),
     (aux_sym_ERR_unexpected_super_in_path_token1, 306), (sym_line_comment, 3),
     (anon_sym_LBRACE, 308), (aux_sym_test_pragma_token1, 9), (aux_sym_once_pragma_token1, 11),
     (aux_sym_must_call_pragma_token1, 13), (aux_sym_export_pragma_token1, 15),
     (anon_sym_SEMI, 310), (anon_sym_PERCENT, 312), (aux_sym_input_decls_token1, 2094),
     (aux_sym_output_decls_token1, 2096), (aux_sym_in_out_decls_token1, 318),
     (aux_sym_var_decls_token1, 2098), (aux_sym_temp_var_decls_token1, 322),
     (aux_sym_external_var_decls_token1, 324), (aux_sym_global_var_decls_token1, 326),
     (aux_sym_method_decl_token1, 330), (aux_sym_method_decl_token3, 2416),
     (aux_sym_prog_access_decls_token1, 332), (aux_sym_config_init_token1, 336),
     (aux_sym__stmt_token1, 340), (aux_sym__stmt_token2, 340), (aux_sym__stmt_token3, 340),
     (aux_sym_if_stmt_token1, 342), (aux_sym_case_stmt_token1, 344), (aux_sym_for_stmt_token1, 346),
     (aux_sym_while_stmt_token1, 348), (aux_sym_repeat_stmt_token1, 350),
     (aux_sym_raise_stmt_token1, 352), (aux_sym_try_stmt_token1, 354),
     (aux_sym_try_stmt_token2, 356), (aux_sym_catch_clause_token1, 356),
     (aux_sym_finally_clause_token1, 356), (sym_ld_rung, 2102), (sym_fbd_network, 2104),
     (sym_c_style_comment, 3), (sym_pascal_style_comment, 3), (sym_pragma, 3)]"

lemma ts_parse_row_978_scan: "row_scan tokens_63_2 0 ts_parse_row_978 = Some (Suc (Suc (Suc (Suc 0))))"
  unfolding ts_parse_row_978_def by simp

text \<open>Lines 165062 to 165165.\<close>

definition ts_parse_row_979 :: parse_row where
  "ts_parse_row_979 =
    [(sym_ERR_assign_func_call, 7530), (sym_ERR_unexpected_this_in_path, 2372),
     (sym_ERR_unexpected_super_in_path, 2372), (sym_ERR_var_access_not_allowed, 3196),
     (sym_ERR_var_config_not_allowed, 3196), (sym_ERR_var_external_not_allowed, 3196),
     (sym_ERR_var_global_not_allowed, 3196), (sym_ERR_method_decl_in_body, 3150),
     (sym_extern_pragma, 7490), (sym_wasm_pragma, 3150), (sym_warn_pragma, 7490),
     (sym_allow_pragma, 3140), (sym_test_pragma, 7490), (sym_once_pragma, 7490),
     (sym_must_call_pragma, 7490), (sym_export_pragma, 7490), (sym_pou_pragma, 7194),
     (sym_direct_variable, 7675), (sym_deref_expression, 2373), (sym_variable, 7599),
     (sym_var_access, 2373), (sym_input_decls, 3196), (sym_output_decls, 3196),
     (sym_in_out_decls, 3196), (sym_var_decls, 3196), (sym_temp_var_decls, 3196),
     (sym_external_var_decls, 3197), (sym_global_var_decls, 2947), (sym_func_body, 10144),
     (sym_method_decl, 3159), (sym__method_decl_variables, 990), (sym_prog_access_decls, 3043),
     (sym_config_init, 3047), (sym_variable_access, 7530), (sym_func_call, 2961),
     (sym_stmt_list, 8165), (sym__stmt, 2024), (sym_assign, 3150), (sym_if_stmt, 3150),
     (sym_case_stmt, 3150), (sym_for_stmt, 3150), (sym_while_stmt, 3150), (sym_repeat_stmt, 3150),
     (sym_raise_stmt, 3150), (sym_try_stmt, 3150), (sym_ERR_clause_outside_try, 3150),
     (sym_begin_path_expression, 2943), (sym_invocation, 2934), (sym_any_invocation, 2935),
     (sym_this_invocation, 2641), (sym_super_invocation, 2641), (sym_super_body_invocation, 2935),
     (sym_path_expression, 2627), (sym_field_expression, 2373), (sym_index_expression, 2373),
     (sym_ladder_diagram, 8165), (sym_fb_diagram, 8165), (aux_sym_func_decl_repeat1, 7194),
     (aux_sym_method_decl_repeat1, 990), (aux_sym_stmt_list_repeat1, 2024),
     (aux_sym_ladder_diagram_repeat1, 7628), (aux_sym_fb_diagram_repeat1, 7633),
     (sym_identifier, 298), (aux_sym_ERR_unexpected_this_in_path_token1, 304),
     (aux_sym_ERR_unexpected_super_in_path_token1, 306), (sym_line_comment, 3),
     (anon_sym_LBRACE, 308), (aux_sym_test_pragma_token1, 9), (aux_sym_once_pragma_token1, 11),
     (aux_sym_must_call_pragma_token1, 13), (aux_sym_export_pragma_token1, 15),
     (anon_sym_SEMI, 310), (anon_sym_PERCENT, 312), (aux_sym_input_decls_token1, 2094),
     (aux_sym_output_decls_token1, 2096), (aux_sym_in_out_decls_token1, 318),
     (aux_sym_var_decls_token1, 2098), (aux_sym_temp_var_decls_token1, 322),
     (aux_sym_external_var_decls_token1, 324), (aux_sym_global_var_decls_token1, 326),
     (aux_sym_method_decl_token1, 330), (aux_sym_method_decl_token3, 2418),
     (aux_sym_prog_access_decls_token1, 332), (aux_sym_config_init_token1, 336),
     (aux_sym__stmt_token1, 340), (aux_sym__stmt_token2, 340), (aux_sym__stmt_token3, 340),
     (aux_sym_if_stmt_token1, 342), (aux_sym_case_stmt_token1, 344), (aux_sym_for_stmt_token1, 346),
     (aux_sym_while_stmt_token1, 348), (aux_sym_repeat_stmt_token1, 350),
     (aux_sym_raise_stmt_token1, 352), (aux_sym_try_stmt_token1, 354),
     (aux_sym_try_stmt_token2, 356), (aux_sym_catch_clause_token1, 356),
     (aux_sym_finally_clause_token1, 356), (sym_ld_rung, 2102), (sym_fbd_network, 2104),
     (sym_c_style_comment, 3), (sym_pascal_style_comment, 3), (sym_pragma, 3)]"

lemma ts_parse_row_979_scan: "row_scan tokens_63_2 0 ts_parse_row_979 = Some (Suc (Suc (Suc (Suc 0))))"
  unfolding ts_parse_row_979_def by simp

text \<open>Lines 165166 to 165269.\<close>

definition ts_parse_row_980 :: parse_row where
  "ts_parse_row_980 =
    [(sym_ERR_assign_func_call, 7530), (sym_ERR_unexpected_this_in_path, 2372),
     (sym_ERR_unexpected_super_in_path, 2372), (sym_ERR_var_access_not_allowed, 3196),
     (sym_ERR_var_config_not_allowed, 3196), (sym_ERR_var_external_not_allowed, 3196),
     (sym_ERR_var_global_not_allowed, 3196), (sym_ERR_method_decl_in_body, 3150),
     (sym_extern_pragma, 7490), (sym_wasm_pragma, 3150), (sym_warn_pragma, 7490),
     (sym_allow_pragma, 3140), (sym_test_pragma, 7490), (sym_once_pragma, 7490),
     (sym_must_call_pragma, 7490), (sym_export_pragma, 7490), (sym_pou_pragma, 7194),
     (sym_direct_variable, 7675), (sym_deref_expression, 2373), (sym_variable, 7599),
     (sym_var_access, 2373), (sym_input_decls, 3196), (sym_output_decls, 3196),
     (sym_in_out_decls, 3196), (sym_var_decls, 3196), (sym_temp_var_decls, 3196),
     (sym_external_var_decls, 3197), (sym_global_var_decls, 2947), (sym_func_body, 8643),
     (sym_method_decl, 3159), (sym__method_decl_variables, 2368), (sym_prog_access_decls, 3043),
     (sym_config_init, 3047), (sym_variable_access, 7530), (sym_func_call, 2961),
     (sym_stmt_list, 8165), (sym__stmt, 2024), (sym_assign, 3150), (sym_if_stmt, 3150),
     (sym_case_stmt, 3150), (sym_for_stmt, 3150), (sym_while_stmt, 3150), (sym_repeat_stmt, 3150),
     (sym_raise_stmt, 3150), (sym_try_stmt, 3150), (sym_ERR_clause_outside_try, 3150),
     (sym_begin_path_expression, 2943), (sym_invocation, 2934), (sym_any_invocation, 2935),
     (sym_this_invocation, 2641), (sym_super_invocation, 2641), (sym_super_body_invocation, 2935),
     (sym_path_expression, 2627), (sym_field_expression, 2373), (sym_index_expression, 2373),
     (sym_ladder_diagram, 8165), (sym_fb_diagram, 8165), (aux_sym_func_decl_repeat1, 7194),
     (aux_sym_method_decl_repeat1, 2368), (aux_sym_stmt_list_repeat1, 2024),
     (aux_sym_ladder_diagram_repeat1, 7628), (aux_sym_fb_diagram_repeat1, 7633),
     (sym_identifier, 298), (aux_sym_ERR_unexpected_this_in_path_token1, 304),
     (aux_sym_ERR_unexpected_super_in_path_token1, 306), (sym_line_comment, 3),
     (anon_sym_LBRACE, 308), (aux_sym_test_pragma_token1, 9), (aux_sym_once_pragma_token1, 11),
     (aux_sym_must_call_pragma_token1, 13), (aux_sym_export_pragma_token1, 15),
     (anon_sym_SEMI, 310), (anon_sym_PERCENT, 312), (aux_sym_input_decls_token1, 2094),
     (aux_sym_output_decls_token1, 2096), (aux_sym_in_out_decls_token1, 318),
     (aux_sym_var_decls_token1, 2098), (aux_sym_temp_var_decls_token1, 322),
     (aux_sym_external_var_decls_token1, 324), (aux_sym_global_var_decls_token1, 326),
     (aux_sym_method_decl_token1, 330), (aux_sym_method_decl_token3, 2420),
     (aux_sym_prog_access_decls_token1, 332), (aux_sym_config_init_token1, 336),
     (aux_sym__stmt_token1, 340), (aux_sym__stmt_token2, 340), (aux_sym__stmt_token3, 340),
     (aux_sym_if_stmt_token1, 342), (aux_sym_case_stmt_token1, 344), (aux_sym_for_stmt_token1, 346),
     (aux_sym_while_stmt_token1, 348), (aux_sym_repeat_stmt_token1, 350),
     (aux_sym_raise_stmt_token1, 352), (aux_sym_try_stmt_token1, 354),
     (aux_sym_try_stmt_token2, 356), (aux_sym_catch_clause_token1, 356),
     (aux_sym_finally_clause_token1, 356), (sym_ld_rung, 2102), (sym_fbd_network, 2104),
     (sym_c_style_comment, 3), (sym_pascal_style_comment, 3), (sym_pragma, 3)]"

lemma ts_parse_row_980_scan: "row_scan tokens_63_2 0 ts_parse_row_980 = Some (Suc (Suc (Suc (Suc 0))))"
  unfolding ts_parse_row_980_def by simp

text \<open>Lines 165270 to 165373.\<close>

definition ts_parse_row_981 :: parse_row where
  "ts_parse_row_981 =
    [(sym_ERR_assign_func_call, 7530), (sym_ERR_unexpected_this_in_path, 2372),
     (sym_ERR_unexpected_super_in_path, 2372), (sym_ERR_var_access_not_allowed, 3266),
     (sym_ERR_var_config_not_allowed, 3266), (sym_ERR_var_external_not_allowed, 3266),
     (sym_ERR_var_global_not_allowed, 3266), (sym_ERR_method_decl_in_body, 3150),
     (sym_extern_pragma, 7490), (sym_wasm_pragma, 3150), (sym_warn_pragma, 7490),
     (sym_allow_pragma, 3140), (sym_test_pragma, 7490), (sym_once_pragma, 7490),
     (sym_must_call_pragma, 7490), (sym_export_pragma, 7490), (sym_pou_pragma, 7194),
     (sym_direct_variable, 7675), (sym_deref_expression, 2373), (sym_variable, 7599),
     (sym_var_access, 2373), (sym_input_decls, 3266), (sym_output_decls, 3266),
     (sym_in_out_decls, 3266), (sym_var_decls, 3266), (sym_temp_var_decls, 3266),
     (sym_external_var_decls, 3248), (sym_global_var_decls, 2947), (sym__func_variables, 2367),
     (sym_func_body, 10417), (sym_method_decl, 3159), (sym_prog_access_decls, 3043),
     (sym_config_init, 3047), (sym_variable_access, 7530), (sym_func_call, 2961),
     (sym_stmt_list, 8165), (sym__stmt, 2024), (sym_assign, 3150), (sym_if_stmt, 3150),
     (sym_case_stmt, 3150), (sym_for_stmt, 3150), (sym_while_stmt, 3150), (sym_repeat_stmt, 3150),
     (sym_raise_stmt, 3150), (sym_try_stmt, 3150), (sym_ERR_clause_outside_try, 3150),
     (sym_begin_path_expression, 2943), (sym_invocation, 2934), (sym_any_invocation, 2935),
     (sym_this_invocation, 2641), (sym_super_invocation, 2641), (sym_super_body_invocation, 2935),
     (sym_path_expression, 2627), (sym_field_expression, 2373), (sym_index_expression, 2373),
     (sym_ladder_diagram, 8165), (sym_fb_diagram, 8165), (aux_sym_func_decl_repeat1, 7194),
     (aux_sym_func_decl_repeat3, 2367), (aux_sym_stmt_list_repeat1, 2024),
     (aux_sym_ladder_diagram_repeat1, 7628), (aux_sym_fb_diagram_repeat1, 7633),
     (sym_identifier, 298), (aux_sym_ERR_unexpected_this_in_path_token1, 304),
     (aux_sym_ERR_unexpected_super_in_path_token1, 306), (sym_line_comment, 3),
     (anon_sym_LBRACE, 308), (aux_sym_test_pragma_token1, 9), (aux_sym_once_pragma_token1, 11),
     (aux_sym_must_call_pragma_token1, 13), (aux_sym_export_pragma_token1, 15),
     (anon_sym_SEMI, 310), (anon_sym_PERCENT, 312), (aux_sym_input_decls_token1, 2094),
     (aux_sym_output_decls_token1, 2096), (aux_sym_in_out_decls_token1, 318),
     (aux_sym_var_decls_token1, 2098), (aux_sym_temp_var_decls_token1, 322),
     (aux_sym_external_var_decls_token1, 324), (aux_sym_global_var_decls_token1, 326),
     (aux_sym_func_decl_token2, 2422), (aux_sym_method_decl_token1, 330),
     (aux_sym_prog_access_decls_token1, 332), (aux_sym_config_init_token1, 336),
     (aux_sym__stmt_token1, 340), (aux_sym__stmt_token2, 340), (aux_sym__stmt_token3, 340),
     (aux_sym_if_stmt_token1, 342), (aux_sym_case_stmt_token1, 344), (aux_sym_for_stmt_token1, 346),
     (aux_sym_while_stmt_token1, 348), (aux_sym_repeat_stmt_token1, 350),
     (aux_sym_raise_stmt_token1, 352), (aux_sym_try_stmt_token1, 354),
     (aux_sym_try_stmt_token2, 356), (aux_sym_catch_clause_token1, 356),
     (aux_sym_finally_clause_token1, 356), (sym_ld_rung, 2102), (sym_fbd_network, 2104),
     (sym_c_style_comment, 3), (sym_pascal_style_comment, 3), (sym_pragma, 3)]"

lemma ts_parse_row_981_scan: "row_scan tokens_63_2 0 ts_parse_row_981 = Some (Suc (Suc (Suc (Suc 0))))"
  unfolding ts_parse_row_981_def by simp

text \<open>Lines 165374 to 165477.\<close>

definition ts_parse_row_982 :: parse_row where
  "ts_parse_row_982 =
    [(sym_ERR_assign_func_call, 7530), (sym_ERR_unexpected_this_in_path, 2372),
     (sym_ERR_unexpected_super_in_path, 2372), (sym_ERR_var_access_not_allowed, 3196),
     (sym_ERR_var_config_not_allowed, 3196), (sym_ERR_var_external_not_allowed, 3196),
     (sym_ERR_var_global_not_allowed, 3196), (sym_ERR_method_decl_in_body, 3150),
     (sym_extern_pragma, 7490), (sym_wasm_pragma, 3150), (sym_warn_pragma, 7490),
     (sym_allow_pragma, 3140), (sym_test_pragma, 7490), (sym_once_pragma, 7490),
     (sym_must_call_pragma, 7490), (sym_export_pragma, 7490), (sym_pou_pragma, 7194),
     (sym_direct_variable, 7675), (sym_deref_expression, 2373), (sym_variable, 7599),
     (sym_var_access, 2373), (sym_input_decls, 3196), (sym_output_decls, 3196),
     (sym_in_out_decls, 3196), (sym_var_decls, 3196), (sym_temp_var_decls, 3196),
     (sym_external_var_decls, 3197), (sym_global_var_decls, 2947), (sym_func_body, 10152),
     (sym_method_decl, 3159), (sym__method_decl_variables, 2368), (sym_prog_access_decls, 3043),
     (sym_config_init, 3047), (sym_variable_access, 7530), (sym_func_call, 2961),
     (sym_stmt_list, 8165), (sym__stmt, 2024), (sym_assign, 3150), (sym_if_stmt, 3150),
     (sym_case_stmt, 3150), (sym_for_stmt, 3150), (sym_while_stmt, 3150), (sym_repeat_stmt, 3150),
     (sym_raise_stmt, 3150), (sym_try_stmt, 3150), (sym_ERR_clause_outside_try, 3150),
     (sym_begin_path_expression, 2943), (sym_invocation, 2934), (sym_any_invocation, 2935),
     (sym_this_invocation, 2641), (sym_super_invocation, 2641), (sym_super_body_invocation, 2935),
     (sym_path_expression, 2627), (sym_field_expression, 2373), (sym_index_expression, 2373),
     (sym_ladder_diagram, 8165), (sym_fb_diagram, 8165), (aux_sym_func_decl_repeat1, 7194),
     (aux_sym_method_decl_repeat1, 2368), (aux_sym_stmt_list_repeat1, 2024),
     (aux_sym_ladder_diagram_repeat1, 7628), (aux_sym_fb_diagram_repeat1, 7633),
     (sym_identifier, 298), (aux_sym_ERR_unexpected_this_in_path_token1, 304),
     (aux_sym_ERR_unexpected_super_in_path_token1, 306), (sym_line_comment, 3),
     (anon_sym_LBRACE, 308), (aux_sym_test_pragma_token1, 9), (aux_sym_once_pragma_token1, 11),
     (aux_sym_must_call_pragma_token1, 13), (aux_sym_export_pragma_token1, 15),
     (anon_sym_SEMI, 310), (anon_sym_PERCENT, 312), (aux_sym_input_decls_token1, 2094),
     (aux_sym_output_decls_token1, 2096), (aux_sym_in_out_decls_token1, 318),
     (aux_sym_var_decls_token1, 2098), (aux_sym_temp_var_decls_token1, 322),
     (aux_sym_external_var_decls_token1, 324), (aux_sym_global_var_decls_token1, 326),
     (aux_sym_method_decl_token1, 330), (aux_sym_method_decl_token3, 2424),
     (aux_sym_prog_access_decls_token1, 332), (aux_sym_config_init_token1, 336),
     (aux_sym__stmt_token1, 340), (aux_sym__stmt_token2, 340), (aux_sym__stmt_token3, 340),
     (aux_sym_if_stmt_token1, 342), (aux_sym_case_stmt_token1, 344), (aux_sym_for_stmt_token1, 346),
     (aux_sym_while_stmt_token1, 348), (aux_sym_repeat_stmt_token1, 350),
     (aux_sym_raise_stmt_token1, 352), (aux_sym_try_stmt_token1, 354),
     (aux_sym_try_stmt_token2, 356), (aux_sym_catch_clause_token1, 356),
     (aux_sym_finally_clause_token1, 356), (sym_ld_rung, 2102), (sym_fbd_network, 2104),
     (sym_c_style_comment, 3), (sym_pascal_style_comment, 3), (sym_pragma, 3)]"

lemma ts_parse_row_982_scan: "row_scan tokens_63_2 0 ts_parse_row_982 = Some (Suc (Suc (Suc (Suc 0))))"
  unfolding ts_parse_row_982_def by simp

text \<open>Lines 165478 to 165581.\<close>

definition ts_parse_row_983 :: parse_row where
  "ts_parse_row_983 =
    [(sym_ERR_assign_func_call, 7530), (sym_ERR_unexpected_this_in_path, 2372),
     (sym_ERR_unexpected_super_in_path, 2372), (sym_ERR_var_access_not_allowed, 3266),
     (sym_ERR_var_config_not_allowed, 3266), (sym_ERR_var_external_not_allowed, 3266),
     (sym_ERR_var_global_not_allowed, 3266), (sym_ERR_method_decl_in_body, 3150),
     (sym_extern_pragma, 7490), (sym_wasm_pragma, 3150), (sym_warn_pragma, 7490),
     (sym_allow_pragma, 3140), (sym_test_pragma, 7490), (sym_once_pragma, 7490),
     (sym_must_call_pragma, 7490), (sym_export_pragma, 7490), (sym_pou_pragma, 7194),
     (sym_direct_variable, 7675), (sym_deref_expression, 2373), (sym_variable, 7599),
     (sym_var_access, 2373), (sym_input_decls, 3266), (sym_output_decls, 3266),
     (sym_in_out_decls, 3266), (sym_var_decls, 3266), (sym_temp_var_decls, 3266),
     (sym_external_var_decls, 3248), (sym_global_var_decls, 2947), (sym__func_variables, 2367),
     (sym_func_body, 8648), (sym_method_decl, 3159), (sym_prog_access_decls, 3043),
     (sym_config_init, 3047), (sym_variable_access, 7530), (sym_func_call, 2961),
     (sym_stmt_list, 8165), (sym__stmt, 2024), (sym_assign, 3150), (sym_if_stmt, 3150),
     (sym_case_stmt, 3150), (sym_for_stmt, 3150), (sym_while_stmt, 3150), (sym_repeat_stmt, 3150),
     (sym_raise_stmt, 3150), (sym_try_stmt, 3150), (sym_ERR_clause_outside_try, 3150),
     (sym_begin_path_expression, 2943), (sym_invocation, 2934), (sym_any_invocation, 2935),
     (sym_this_invocation, 2641), (sym_super_invocation, 2641), (sym_super_body_invocation, 2935),
     (sym_path_expression, 2627), (sym_field_expression, 2373), (sym_index_expression, 2373),
     (sym_ladder_diagram, 8165), (sym_fb_diagram, 8165), (aux_sym_func_decl_repeat1, 7194),
     (aux_sym_func_decl_repeat3, 2367), (aux_sym_stmt_list_repeat1, 2024),
     (aux_sym_ladder_diagram_repeat1, 7628), (aux_sym_fb_diagram_repeat1, 7633),
     (sym_identifier, 298), (aux_sym_ERR_unexpected_this_in_path_token1, 304),
     (aux_sym_ERR_unexpected_super_in_path_token1, 306), (sym_line_comment, 3),
     (anon_sym_LBRACE, 308), (aux_sym_test_pragma_token1, 9), (aux_sym_once_pragma_token1, 11),
     (aux_sym_must_call_pragma_token1, 13), (aux_sym_export_pragma_token1, 15),
     (anon_sym_SEMI, 310), (anon_sym_PERCENT, 312), (aux_sym_input_decls_token1, 2094),
     (aux_sym_output_decls_token1, 2096), (aux_sym_in_out_decls_token1, 318),
     (aux_sym_var_decls_token1, 2098), (aux_sym_temp_var_decls_token1, 322),
     (aux_sym_external_var_decls_token1, 324), (aux_sym_global_var_decls_token1, 326),
     (aux_sym_func_decl_token2, 2426), (aux_sym_method_decl_token1, 330),
     (aux_sym_prog_access_decls_token1, 332), (aux_sym_config_init_token1, 336),
     (aux_sym__stmt_token1, 340), (aux_sym__stmt_token2, 340), (aux_sym__stmt_token3, 340),
     (aux_sym_if_stmt_token1, 342), (aux_sym_case_stmt_token1, 344), (aux_sym_for_stmt_token1, 346),
     (aux_sym_while_stmt_token1, 348), (aux_sym_repeat_stmt_token1, 350),
     (aux_sym_raise_stmt_token1, 352), (aux_sym_try_stmt_token1, 354),
     (aux_sym_try_stmt_token2, 356), (aux_sym_catch_clause_token1, 356),
     (aux_sym_finally_clause_token1, 356), (sym_ld_rung, 2102), (sym_fbd_network, 2104),
     (sym_c_style_comment, 3), (sym_pascal_style_comment, 3), (sym_pragma, 3)]"

lemma ts_parse_row_983_scan: "row_scan tokens_63_2 0 ts_parse_row_983 = Some (Suc (Suc (Suc (Suc 0))))"
  unfolding ts_parse_row_983_def by simp

text \<open>Lines 165582 to 165685.\<close>

definition ts_parse_row_984 :: parse_row where
  "ts_parse_row_984 =
    [(sym_ERR_assign_func_call, 7530), (sym_ERR_unexpected_this_in_path, 2372),
     (sym_ERR_unexpected_super_in_path, 2372), (sym_ERR_var_access_not_allowed, 3266),
     (sym_ERR_var_config_not_allowed, 3266), (sym_ERR_var_external_not_allowed, 3266),
     (sym_ERR_var_global_not_allowed, 3266), (sym_ERR_method_decl_in_body, 3150),
     (sym_extern_pragma, 7490), (sym_wasm_pragma, 3150), (sym_warn_pragma, 7490),
     (sym_allow_pragma, 3140), (sym_test_pragma, 7490), (sym_once_pragma, 7490),
     (sym_must_call_pragma, 7490), (sym_export_pragma, 7490), (sym_pou_pragma, 7194),
     (sym_direct_variable, 7675), (sym_deref_expression, 2373), (sym_variable, 7599),
     (sym_var_access, 2373), (sym_input_decls, 3266), (sym_output_decls, 3266),
     (sym_in_out_decls, 3266), (sym_var_decls, 3266), (sym_temp_var_decls, 3266),
     (sym_external_var_decls, 3248), (sym_global_var_decls, 2947), (sym__func_variables, 2367),
     (sym_func_body, 8718), (sym_method_decl, 3159), (sym_prog_access_decls, 3043),
     (sym_config_init, 3047), (sym_variable_access, 7530), (sym_func_call, 2961),
     (sym_stmt_list, 8165), (sym__stmt, 2024), (sym_assign, 3150), (sym_if_stmt, 3150),
     (sym_case_stmt, 3150), (sym_for_stmt, 3150), (sym_while_stmt, 3150), (sym_repeat_stmt, 3150),
     (sym_raise_stmt, 3150), (sym_try_stmt, 3150), (sym_ERR_clause_outside_try, 3150),
     (sym_begin_path_expression, 2943), (sym_invocation, 2934), (sym_any_invocation, 2935),
     (sym_this_invocation, 2641), (sym_super_invocation, 2641), (sym_super_body_invocation, 2935),
     (sym_path_expression, 2627), (sym_field_expression, 2373), (sym_index_expression, 2373),
     (sym_ladder_diagram, 8165), (sym_fb_diagram, 8165), (aux_sym_func_decl_repeat1, 7194),
     (aux_sym_func_decl_repeat3, 2367), (aux_sym_stmt_list_repeat1, 2024),
     (aux_sym_ladder_diagram_repeat1, 7628), (aux_sym_fb_diagram_repeat1, 7633),
     (sym_identifier, 298), (aux_sym_ERR_unexpected_this_in_path_token1, 304),
     (aux_sym_ERR_unexpected_super_in_path_token1, 306), (sym_line_comment, 3),
     (anon_sym_LBRACE, 308), (aux_sym_test_pragma_token1, 9), (aux_sym_once_pragma_token1, 11),
     (aux_sym_must_call_pragma_token1, 13), (aux_sym_export_pragma_token1, 15),
     (anon_sym_SEMI, 310), (anon_sym_PERCENT, 312), (aux_sym_input_decls_token1, 2094),
     (aux_sym_output_decls_token1, 2096), (aux_sym_in_out_decls_token1, 318),
     (aux_sym_var_decls_token1, 2098), (aux_sym_temp_var_decls_token1, 322),
     (aux_sym_external_var_decls_token1, 324), (aux_sym_global_var_decls_token1, 326),
     (aux_sym_func_decl_token2, 2428), (aux_sym_method_decl_token1, 330),
     (aux_sym_prog_access_decls_token1, 332), (aux_sym_config_init_token1, 336),
     (aux_sym__stmt_token1, 340), (aux_sym__stmt_token2, 340), (aux_sym__stmt_token3, 340),
     (aux_sym_if_stmt_token1, 342), (aux_sym_case_stmt_token1, 344), (aux_sym_for_stmt_token1, 346),
     (aux_sym_while_stmt_token1, 348), (aux_sym_repeat_stmt_token1, 350),
     (aux_sym_raise_stmt_token1, 352), (aux_sym_try_stmt_token1, 354),
     (aux_sym_try_stmt_token2, 356), (aux_sym_catch_clause_token1, 356),
     (aux_sym_finally_clause_token1, 356), (sym_ld_rung, 2102), (sym_fbd_network, 2104),
     (sym_c_style_comment, 3), (sym_pascal_style_comment, 3), (sym_pragma, 3)]"

lemma ts_parse_row_984_scan: "row_scan tokens_63_2 0 ts_parse_row_984 = Some (Suc (Suc (Suc (Suc 0))))"
  unfolding ts_parse_row_984_def by simp

text \<open>Lines 165686 to 165789.\<close>

definition ts_parse_row_985 :: parse_row where
  "ts_parse_row_985 =
    [(sym_ERR_assign_func_call, 7530), (sym_ERR_unexpected_this_in_path, 2372),
     (sym_ERR_unexpected_super_in_path, 2372), (sym_ERR_var_access_not_allowed, 3196),
     (sym_ERR_var_config_not_allowed, 3196), (sym_ERR_var_external_not_allowed, 3196),
     (sym_ERR_var_global_not_allowed, 3196), (sym_ERR_method_decl_in_body, 3150),
     (sym_extern_pragma, 7490), (sym_wasm_pragma, 3150), (sym_warn_pragma, 7490),
     (sym_allow_pragma, 3140), (sym_test_pragma, 7490), (sym_once_pragma, 7490),
     (sym_must_call_pragma, 7490), (sym_export_pragma, 7490), (sym_pou_pragma, 7194),
     (sym_direct_variable, 7675), (sym_deref_expression, 2373), (sym_variable, 7599),
     (sym_var_access, 2373), (sym_input_decls, 3196), (sym_output_decls, 3196),
     (sym_in_out_decls, 3196), (sym_var_decls, 3196), (sym_temp_var_decls, 3196),
     (sym_external_var_decls, 3197), (sym_global_var_decls, 2947), (sym_func_body, 10167),
     (sym_method_decl, 3159), (sym__method_decl_variables, 2368), (sym_prog_access_decls, 3043),
     (sym_config_init, 3047), (sym_variable_access, 7530), (sym_func_call, 2961),
     (sym_stmt_list, 8165), (sym__stmt, 2024), (sym_assign, 3150), (sym_if_stmt, 3150),
     (sym_case_stmt, 3150), (sym_for_stmt, 3150), (sym_while_stmt, 3150), (sym_repeat_stmt, 3150),
     (sym_raise_stmt, 3150), (sym_try_stmt, 3150), (sym_ERR_clause_outside_try, 3150),
     (sym_begin_path_expression, 2943), (sym_invocation, 2934), (sym_any_invocation, 2935),
     (sym_this_invocation, 2641), (sym_super_invocation, 2641), (sym_super_body_invocation, 2935),
     (sym_path_expression, 2627), (sym_field_expression, 2373), (sym_index_expression, 2373),
     (sym_ladder_diagram, 8165), (sym_fb_diagram, 8165), (aux_sym_func_decl_repeat1, 7194),
     (aux_sym_method_decl_repeat1, 2368), (aux_sym_stmt_list_repeat1, 2024),
     (aux_sym_ladder_diagram_repeat1, 7628), (aux_sym_fb_diagram_repeat1, 7633),
     (sym_identifier, 298), (aux_sym_ERR_unexpected_this_in_path_token1, 304),
     (aux_sym_ERR_unexpected_super_in_path_token1, 306), (sym_line_comment, 3),
     (anon_sym_LBRACE, 308), (aux_sym_test_pragma_token1, 9), (aux_sym_once_pragma_token1, 11),
     (aux_sym_must_call_pragma_token1, 13), (aux_sym_export_pragma_token1, 15),
     (anon_sym_SEMI, 310), (anon_sym_PERCENT, 312), (aux_sym_input_decls_token1, 2094),
     (aux_sym_output_decls_token1, 2096), (aux_sym_in_out_decls_token1, 318),
     (aux_sym_var_decls_token1, 2098), (aux_sym_temp_var_decls_token1, 322),
     (aux_sym_external_var_decls_token1, 324), (aux_sym_global_var_decls_token1, 326),
     (aux_sym_method_decl_token1, 330), (aux_sym_method_decl_token3, 2430),
     (aux_sym_prog_access_decls_token1, 332), (aux_sym_config_init_token1, 336),
     (aux_sym__stmt_token1, 340), (aux_sym__stmt_token2, 340), (aux_sym__stmt_token3, 340),
     (aux_sym_if_stmt_token1, 342), (aux_sym_case_stmt_token1, 344), (aux_sym_for_stmt_token1, 346),
     (aux_sym_while_stmt_token1, 348), (aux_sym_repeat_stmt_token1, 350),
     (aux_sym_raise_stmt_token1, 352), (aux_sym_try_stmt_token1, 354),
     (aux_sym_try_stmt_token2, 356), (aux_sym_catch_clause_token1, 356),
     (aux_sym_finally_clause_token1, 356), (sym_ld_rung, 2102), (sym_fbd_network, 2104),
     (sym_c_style_comment, 3), (sym_pascal_style_comment, 3), (sym_pragma, 3)]"

lemma ts_parse_row_985_scan: "row_scan tokens_63_2 0 ts_parse_row_985 = Some (Suc (Suc (Suc (Suc 0))))"
  unfolding ts_parse_row_985_def by simp

text \<open>Lines 165790 to 165893.\<close>

definition ts_parse_row_986 :: parse_row where
  "ts_parse_row_986 =
    [(sym_ERR_assign_func_call, 7530), (sym_ERR_unexpected_this_in_path, 2372),
     (sym_ERR_unexpected_super_in_path, 2372), (sym_ERR_var_access_not_allowed, 3196),
     (sym_ERR_var_config_not_allowed, 3196), (sym_ERR_var_external_not_allowed, 3196),
     (sym_ERR_var_global_not_allowed, 3196), (sym_ERR_method_decl_in_body, 3150),
     (sym_extern_pragma, 7490), (sym_wasm_pragma, 3150), (sym_warn_pragma, 7490),
     (sym_allow_pragma, 3140), (sym_test_pragma, 7490), (sym_once_pragma, 7490),
     (sym_must_call_pragma, 7490), (sym_export_pragma, 7490), (sym_pou_pragma, 7194),
     (sym_direct_variable, 7675), (sym_deref_expression, 2373), (sym_variable, 7599),
     (sym_var_access, 2373), (sym_input_decls, 3196), (sym_output_decls, 3196),
     (sym_in_out_decls, 3196), (sym_var_decls, 3196), (sym_temp_var_decls, 3196),
     (sym_external_var_decls, 3197), (sym_global_var_decls, 2947), (sym_func_body, 9252),
     (sym_method_decl, 3159), (sym__method_decl_variables, 2368), (sym_prog_access_decls, 3043),
     (sym_config_init, 3047), (sym_variable_access, 7530), (sym_func_call, 2961),
     (sym_stmt_list, 8165), (sym__stmt, 2024), (sym_assign, 3150), (sym_if_stmt, 3150),
     (sym_case_stmt, 3150), (sym_for_stmt, 3150), (sym_while_stmt, 3150), (sym_repeat_stmt, 3150),
     (sym_raise_stmt, 3150), (sym_try_stmt, 3150), (sym_ERR_clause_outside_try, 3150),
     (sym_begin_path_expression, 2943), (sym_invocation, 2934), (sym_any_invocation, 2935),
     (sym_this_invocation, 2641), (sym_super_invocation, 2641), (sym_super_body_invocation, 2935),
     (sym_path_expression, 2627), (sym_field_expression, 2373), (sym_index_expression, 2373),
     (sym_ladder_diagram, 8165), (sym_fb_diagram, 8165), (aux_sym_func_decl_repeat1, 7194),
     (aux_sym_method_decl_repeat1, 2368), (aux_sym_stmt_list_repeat1, 2024),
     (aux_sym_ladder_diagram_repeat1, 7628), (aux_sym_fb_diagram_repeat1, 7633),
     (sym_identifier, 298), (aux_sym_ERR_unexpected_this_in_path_token1, 304),
     (aux_sym_ERR_unexpected_super_in_path_token1, 306), (sym_line_comment, 3),
     (anon_sym_LBRACE, 308), (aux_sym_test_pragma_token1, 9), (aux_sym_once_pragma_token1, 11),
     (aux_sym_must_call_pragma_token1, 13), (aux_sym_export_pragma_token1, 15),
     (anon_sym_SEMI, 310), (anon_sym_PERCENT, 312), (aux_sym_input_decls_token1, 2094),
     (aux_sym_output_decls_token1, 2096), (aux_sym_in_out_decls_token1, 318),
     (aux_sym_var_decls_token1, 2098), (aux_sym_temp_var_decls_token1, 322),
     (aux_sym_external_var_decls_token1, 324), (aux_sym_global_var_decls_token1, 326),
     (aux_sym_method_decl_token1, 330), (aux_sym_method_decl_token3, 2432),
     (aux_sym_prog_access_decls_token1, 332), (aux_sym_config_init_token1, 336),
     (aux_sym__stmt_token1, 340), (aux_sym__stmt_token2, 340), (aux_sym__stmt_token3, 340),
     (aux_sym_if_stmt_token1, 342), (aux_sym_case_stmt_token1, 344), (aux_sym_for_stmt_token1, 346),
     (aux_sym_while_stmt_token1, 348), (aux_sym_repeat_stmt_token1, 350),
     (aux_sym_raise_stmt_token1, 352), (aux_sym_try_stmt_token1, 354),
     (aux_sym_try_stmt_token2, 356), (aux_sym_catch_clause_token1, 356),
     (aux_sym_finally_clause_token1, 356), (sym_ld_rung, 2102), (sym_fbd_network, 2104),
     (sym_c_style_comment, 3), (sym_pascal_style_comment, 3), (sym_pragma, 3)]"

lemma ts_parse_row_986_scan: "row_scan tokens_63_2 0 ts_parse_row_986 = Some (Suc (Suc (Suc (Suc 0))))"
  unfolding ts_parse_row_986_def by simp

text \<open>Lines 165894 to 165997.\<close>

definition ts_parse_row_987 :: parse_row where
  "ts_parse_row_987 =
    [(sym_ERR_assign_func_call, 7530), (sym_ERR_unexpected_this_in_path, 2372),
     (sym_ERR_unexpected_super_in_path, 2372), (sym_ERR_var_access_not_allowed, 3196),
     (sym_ERR_var_config_not_allowed, 3196), (sym_ERR_var_external_not_allowed, 3196),
     (sym_ERR_var_global_not_allowed, 3196), (sym_ERR_method_decl_in_body, 3150),
     (sym_extern_pragma, 7490), (sym_wasm_pragma, 3150), (sym_warn_pragma, 7490),
     (sym_allow_pragma, 3140), (sym_test_pragma, 7490), (sym_once_pragma, 7490),
     (sym_must_call_pragma, 7490), (sym_export_pragma, 7490), (sym_pou_pragma, 7194),
     (sym_direct_variable, 7675), (sym_deref_expression, 2373), (sym_variable, 7599),
     (sym_var_access, 2373), (sym_input_decls, 3196), (sym_output_decls, 3196),
     (sym_in_out_decls, 3196), (sym_var_decls, 3196), (sym_temp_var_decls, 3196),
     (sym_external_var_decls, 3197), (sym_global_var_decls, 2947), (sym_func_body, 10175),
     (sym_method_decl, 3159), (sym__method_decl_variables, 2368), (sym_prog_access_decls, 3043),
     (sym_config_init, 3047), (sym_variable_access, 7530), (sym_func_call, 2961),
     (sym_stmt_list, 8165), (sym__stmt, 2024), (sym_assign, 3150), (sym_if_stmt, 3150),
     (sym_case_stmt, 3150), (sym_for_stmt, 3150), (sym_while_stmt, 3150), (sym_repeat_stmt, 3150),
     (sym_raise_stmt, 3150), (sym_try_stmt, 3150), (sym_ERR_clause_outside_try, 3150),
     (sym_begin_path_expression, 2943), (sym_invocation, 2934), (sym_any_invocation, 2935),
     (sym_this_invocation, 2641), (sym_super_invocation, 2641), (sym_super_body_invocation, 2935),
     (sym_path_expression, 2627), (sym_field_expression, 2373), (sym_index_expression, 2373),
     (sym_ladder_diagram, 8165), (sym_fb_diagram, 8165), (aux_sym_func_decl_repeat1, 7194),
     (aux_sym_method_decl_repeat1, 2368), (aux_sym_stmt_list_repeat1, 2024),
     (aux_sym_ladder_diagram_repeat1, 7628), (aux_sym_fb_diagram_repeat1, 7633),
     (sym_identifier, 298), (aux_sym_ERR_unexpected_this_in_path_token1, 304),
     (aux_sym_ERR_unexpected_super_in_path_token1, 306), (sym_line_comment, 3),
     (anon_sym_LBRACE, 308), (aux_sym_test_pragma_token1, 9), (aux_sym_once_pragma_token1, 11),
     (aux_sym_must_call_pragma_token1, 13), (aux_sym_export_pragma_token1, 15),
     (anon_sym_SEMI, 310), (anon_sym_PERCENT, 312), (aux_sym_input_decls_token1, 2094),
     (aux_sym_output_decls_token1, 2096), (aux_sym_in_out_decls_token1, 318),
     (aux_sym_var_decls_token1, 2098), (aux_sym_temp_var_decls_token1, 322),
     (aux_sym_external_var_decls_token1, 324), (aux_sym_global_var_decls_token1, 326),
     (aux_sym_method_decl_token1, 330), (aux_sym_method_decl_token3, 2434),
     (aux_sym_prog_access_decls_token1, 332), (aux_sym_config_init_token1, 336),
     (aux_sym__stmt_token1, 340), (aux_sym__stmt_token2, 340), (aux_sym__stmt_token3, 340),
     (aux_sym_if_stmt_token1, 342), (aux_sym_case_stmt_token1, 344), (aux_sym_for_stmt_token1, 346),
     (aux_sym_while_stmt_token1, 348), (aux_sym_repeat_stmt_token1, 350),
     (aux_sym_raise_stmt_token1, 352), (aux_sym_try_stmt_token1, 354),
     (aux_sym_try_stmt_token2, 356), (aux_sym_catch_clause_token1, 356),
     (aux_sym_finally_clause_token1, 356), (sym_ld_rung, 2102), (sym_fbd_network, 2104),
     (sym_c_style_comment, 3), (sym_pascal_style_comment, 3), (sym_pragma, 3)]"

lemma ts_parse_row_987_scan: "row_scan tokens_63_2 0 ts_parse_row_987 = Some (Suc (Suc (Suc (Suc 0))))"
  unfolding ts_parse_row_987_def by simp

text \<open>Lines 165998 to 166101.\<close>

definition ts_parse_row_988 :: parse_row where
  "ts_parse_row_988 =
    [(sym_ERR_assign_func_call, 7530), (sym_ERR_unexpected_this_in_path, 2372),
     (sym_ERR_unexpected_super_in_path, 2372), (sym_ERR_var_access_not_allowed, 3196),
     (sym_ERR_var_config_not_allowed, 3196), (sym_ERR_var_external_not_allowed, 3196),
     (sym_ERR_var_global_not_allowed, 3196), (sym_ERR_method_decl_in_body, 3150),
     (sym_extern_pragma, 7490), (sym_wasm_pragma, 3150), (sym_warn_pragma, 7490),
     (sym_allow_pragma, 3140), (sym_test_pragma, 7490), (sym_once_pragma, 7490),
     (sym_must_call_pragma, 7490), (sym_export_pragma, 7490), (sym_pou_pragma, 7194),
     (sym_direct_variable, 7675), (sym_deref_expression, 2373), (sym_variable, 7599),
     (sym_var_access, 2373), (sym_input_decls, 3196), (sym_output_decls, 3196),
     (sym_in_out_decls, 3196), (sym_var_decls, 3196), (sym_temp_var_decls, 3196),
     (sym_external_var_decls, 3197), (sym_global_var_decls, 2947), (sym_func_body, 10176),
     (sym_method_decl, 3159), (sym__method_decl_variables, 1003), (sym_prog_access_decls, 3043),
     (sym_config_init, 3047), (sym_variable_access, 7530), (sym_func_call, 2961),
     (sym_stmt_list, 8165), (sym__stmt, 2024), (sym_assign, 3150), (sym_if_stmt, 3150),
     (sym_case_stmt, 3150), (sym_for_stmt, 3150), (sym_while_stmt, 3150), (sym_repeat_stmt, 3150),
     (sym_raise_stmt, 3150), (sym_try_stmt, 3150), (sym_ERR_clause_outside_try, 3150),
     (sym_begin_path_expression, 2943), (sym_invocation, 2934), (sym_any_invocation, 2935),
     (sym_this_invocation, 2641), (sym_super_invocation, 2641), (sym_super_body_invocation, 2935),
     (sym_path_expression, 2627), (sym_field_expression, 2373), (sym_index_expression, 2373),
     (sym_ladder_diagram, 8165), (sym_fb_diagram, 8165), (aux_sym_func_decl_repeat1, 7194),
     (aux_sym_method_decl_repeat1, 1003), (aux_sym_stmt_list_repeat1, 2024),
     (aux_sym_ladder_diagram_repeat1, 7628), (aux_sym_fb_diagram_repeat1, 7633),
     (sym_identifier, 298), (aux_sym_ERR_unexpected_this_in_path_token1, 304),
     (aux_sym_ERR_unexpected_super_in_path_token1, 306), (sym_line_comment, 3),
     (anon_sym_LBRACE, 308), (aux_sym_test_pragma_token1, 9), (aux_sym_once_pragma_token1, 11),
     (aux_sym_must_call_pragma_token1, 13), (aux_sym_export_pragma_token1, 15),
     (anon_sym_SEMI, 310), (anon_sym_PERCENT, 312), (aux_sym_input_decls_token1, 2094),
     (aux_sym_output_decls_token1, 2096), (aux_sym_in_out_decls_token1, 318),
     (aux_sym_var_decls_token1, 2098), (aux_sym_temp_var_decls_token1, 322),
     (aux_sym_external_var_decls_token1, 324), (aux_sym_global_var_decls_token1, 326),
     (aux_sym_method_decl_token1, 330), (aux_sym_method_decl_token3, 2436),
     (aux_sym_prog_access_decls_token1, 332), (aux_sym_config_init_token1, 336),
     (aux_sym__stmt_token1, 340), (aux_sym__stmt_token2, 340), (aux_sym__stmt_token3, 340),
     (aux_sym_if_stmt_token1, 342), (aux_sym_case_stmt_token1, 344), (aux_sym_for_stmt_token1, 346),
     (aux_sym_while_stmt_token1, 348), (aux_sym_repeat_stmt_token1, 350),
     (aux_sym_raise_stmt_token1, 352), (aux_sym_try_stmt_token1, 354),
     (aux_sym_try_stmt_token2, 356), (aux_sym_catch_clause_token1, 356),
     (aux_sym_finally_clause_token1, 356), (sym_ld_rung, 2102), (sym_fbd_network, 2104),
     (sym_c_style_comment, 3), (sym_pascal_style_comment, 3), (sym_pragma, 3)]"

lemma ts_parse_row_988_scan: "row_scan tokens_63_2 0 ts_parse_row_988 = Some (Suc (Suc (Suc (Suc 0))))"
  unfolding ts_parse_row_988_def by simp

text \<open>Lines 166102 to 166205.\<close>

definition ts_parse_row_989 :: parse_row where
  "ts_parse_row_989 =
    [(sym_ERR_assign_func_call, 7530), (sym_ERR_unexpected_this_in_path, 2372),
     (sym_ERR_unexpected_super_in_path, 2372), (sym_ERR_var_access_not_allowed, 3196),
     (sym_ERR_var_config_not_allowed, 3196), (sym_ERR_var_external_not_allowed, 3196),
     (sym_ERR_var_global_not_allowed, 3196), (sym_ERR_method_decl_in_body, 3150),
     (sym_extern_pragma, 7490), (sym_wasm_pragma, 3150), (sym_warn_pragma, 7490),
     (sym_allow_pragma, 3140), (sym_test_pragma, 7490), (sym_once_pragma, 7490),
     (sym_must_call_pragma, 7490), (sym_export_pragma, 7490), (sym_pou_pragma, 7194),
     (sym_direct_variable, 7675), (sym_deref_expression, 2373), (sym_variable, 7599),
     (sym_var_access, 2373), (sym_input_decls, 3196), (sym_output_decls, 3196),
     (sym_in_out_decls, 3196), (sym_var_decls, 3196), (sym_temp_var_decls, 3196),
     (sym_external_var_decls, 3197), (sym_global_var_decls, 2947), (sym_func_body, 9988),
     (sym_method_decl, 3159), (sym__method_decl_variables, 2368), (sym_prog_access_decls, 3043),
     (sym_config_init, 3047), (sym_variable_access, 7530), (sym_func_call, 2961),
     (sym_stmt_list, 8165), (sym__stmt, 2024), (sym_assign, 3150), (sym_if_stmt, 3150),
     (sym_case_stmt, 3150), (sym_for_stmt, 3150), (sym_while_stmt, 3150), (sym_repeat_stmt, 3150),
     (sym_raise_stmt, 3150), (sym_try_stmt, 3150), (sym_ERR_clause_outside_try, 3150),
     (sym_begin_path_expression, 2943), (sym_invocation, 2934), (sym_any_invocation, 2935),
     (sym_this_invocation, 2641), (sym_super_invocation, 2641), (sym_super_body_invocation, 2935),
     (sym_path_expression, 2627), (sym_field_expression, 2373), (sym_index_expression, 2373),
     (sym_ladder_diagram, 8165), (sym_fb_diagram, 8165), (aux_sym_func_decl_repeat1, 7194),
     (aux_sym_method_decl_repeat1, 2368), (aux_sym_stmt_list_repeat1, 2024),
     (aux_sym_ladder_diagram_repeat1, 7628), (aux_sym_fb_diagram_repeat1, 7633),
     (sym_identifier, 298), (aux_sym_ERR_unexpected_this_in_path_token1, 304),
     (aux_sym_ERR_unexpected_super_in_path_token1, 306), (sym_line_comment, 3),
     (anon_sym_LBRACE, 308), (aux_sym_test_pragma_token1, 9), (aux_sym_once_pragma_token1, 11),
     (aux_sym_must_call_pragma_token1, 13), (aux_sym_export_pragma_token1, 15),
     (anon_sym_SEMI, 310), (anon_sym_PERCENT, 312), (aux_sym_input_decls_token1, 2094),
     (aux_sym_output_decls_token1, 2096), (aux_sym_in_out_decls_token1, 318),
     (aux_sym_var_decls_token1, 2098), (aux_sym_temp_var_decls_token1, 322),
     (aux_sym_external_var_decls_token1, 324), (aux_sym_global_var_decls_token1, 326),
     (aux_sym_method_decl_token1, 330), (aux_sym_method_decl_token3, 2438),
     (aux_sym_prog_access_decls_token1, 332), (aux_sym_config_init_token1, 336),
     (aux_sym__stmt_token1, 340), (aux_sym__stmt_token2, 340), (aux_sym__stmt_token3, 340),
     (aux_sym_if_stmt_token1, 342), (aux_sym_case_stmt_token1, 344), (aux_sym_for_stmt_token1, 346),
     (aux_sym_while_stmt_token1, 348), (aux_sym_repeat_stmt_token1, 350),
     (aux_sym_raise_stmt_token1, 352), (aux_sym_try_stmt_token1, 354),
     (aux_sym_try_stmt_token2, 356), (aux_sym_catch_clause_token1, 356),
     (aux_sym_finally_clause_token1, 356), (sym_ld_rung, 2102), (sym_fbd_network, 2104),
     (sym_c_style_comment, 3), (sym_pascal_style_comment, 3), (sym_pragma, 3)]"

lemma ts_parse_row_989_scan: "row_scan tokens_63_2 0 ts_parse_row_989 = Some (Suc (Suc (Suc (Suc 0))))"
  unfolding ts_parse_row_989_def by simp

text \<open>Lines 166206 to 166309.\<close>

definition ts_parse_row_990 :: parse_row where
  "ts_parse_row_990 =
    [(sym_ERR_assign_func_call, 7530), (sym_ERR_unexpected_this_in_path, 2372),
     (sym_ERR_unexpected_super_in_path, 2372), (sym_ERR_var_access_not_allowed, 3196),
     (sym_ERR_var_config_not_allowed, 3196), (sym_ERR_var_external_not_allowed, 3196),
     (sym_ERR_var_global_not_allowed, 3196), (sym_ERR_method_decl_in_body, 3150),
     (sym_extern_pragma, 7490), (sym_wasm_pragma, 3150), (sym_warn_pragma, 7490),
     (sym_allow_pragma, 3140), (sym_test_pragma, 7490), (sym_once_pragma, 7490),
     (sym_must_call_pragma, 7490), (sym_export_pragma, 7490), (sym_pou_pragma, 7194),
     (sym_direct_variable, 7675), (sym_deref_expression, 2373), (sym_variable, 7599),
     (sym_var_access, 2373), (sym_input_decls, 3196), (sym_output_decls, 3196),
     (sym_in_out_decls, 3196), (sym_var_decls, 3196), (sym_temp_var_decls, 3196),
     (sym_external_var_decls, 3197), (sym_global_var_decls, 2947), (sym_func_body, 10180),
     (sym_method_decl, 3159), (sym__method_decl_variables, 2368), (sym_prog_access_decls, 3043),
     (sym_config_init, 3047), (sym_variable_access, 7530), (sym_func_call, 2961),
     (sym_stmt_list, 8165), (sym__stmt, 2024), (sym_assign, 3150), (sym_if_stmt, 3150),
     (sym_case_stmt, 3150), (sym_for_stmt, 3150), (sym_while_stmt, 3150), (sym_repeat_stmt, 3150),
     (sym_raise_stmt, 3150), (sym_try_stmt, 3150), (sym_ERR_clause_outside_try, 3150),
     (sym_begin_path_expression, 2943), (sym_invocation, 2934), (sym_any_invocation, 2935),
     (sym_this_invocation, 2641), (sym_super_invocation, 2641), (sym_super_body_invocation, 2935),
     (sym_path_expression, 2627), (sym_field_expression, 2373), (sym_index_expression, 2373),
     (sym_ladder_diagram, 8165), (sym_fb_diagram, 8165), (aux_sym_func_decl_repeat1, 7194),
     (aux_sym_method_decl_repeat1, 2368), (aux_sym_stmt_list_repeat1, 2024),
     (aux_sym_ladder_diagram_repeat1, 7628), (aux_sym_fb_diagram_repeat1, 7633),
     (sym_identifier, 298), (aux_sym_ERR_unexpected_this_in_path_token1, 304),
     (aux_sym_ERR_unexpected_super_in_path_token1, 306), (sym_line_comment, 3),
     (anon_sym_LBRACE, 308), (aux_sym_test_pragma_token1, 9), (aux_sym_once_pragma_token1, 11),
     (aux_sym_must_call_pragma_token1, 13), (aux_sym_export_pragma_token1, 15),
     (anon_sym_SEMI, 310), (anon_sym_PERCENT, 312), (aux_sym_input_decls_token1, 2094),
     (aux_sym_output_decls_token1, 2096), (aux_sym_in_out_decls_token1, 318),
     (aux_sym_var_decls_token1, 2098), (aux_sym_temp_var_decls_token1, 322),
     (aux_sym_external_var_decls_token1, 324), (aux_sym_global_var_decls_token1, 326),
     (aux_sym_method_decl_token1, 330), (aux_sym_method_decl_token3, 2440),
     (aux_sym_prog_access_decls_token1, 332), (aux_sym_config_init_token1, 336),
     (aux_sym__stmt_token1, 340), (aux_sym__stmt_token2, 340), (aux_sym__stmt_token3, 340),
     (aux_sym_if_stmt_token1, 342), (aux_sym_case_stmt_token1, 344), (aux_sym_for_stmt_token1, 346),
     (aux_sym_while_stmt_token1, 348), (aux_sym_repeat_stmt_token1, 350),
     (aux_sym_raise_stmt_token1, 352), (aux_sym_try_stmt_token1, 354),
     (aux_sym_try_stmt_token2, 356), (aux_sym_catch_clause_token1, 356),
     (aux_sym_finally_clause_token1, 356), (sym_ld_rung, 2102), (sym_fbd_network, 2104),
     (sym_c_style_comment, 3), (sym_pascal_style_comment, 3), (sym_pragma, 3)]"

lemma ts_parse_row_990_scan: "row_scan tokens_63_2 0 ts_parse_row_990 = Some (Suc (Suc (Suc (Suc 0))))"
  unfolding ts_parse_row_990_def by simp

text \<open>Lines 166310 to 166413.\<close>

definition ts_parse_row_991 :: parse_row where
  "ts_parse_row_991 =
    [(sym_ERR_assign_func_call, 7530), (sym_ERR_unexpected_this_in_path, 2372),
     (sym_ERR_unexpected_super_in_path, 2372), (sym_ERR_var_access_not_allowed, 3196),
     (sym_ERR_var_config_not_allowed, 3196), (sym_ERR_var_external_not_allowed, 3196),
     (sym_ERR_var_global_not_allowed, 3196), (sym_ERR_method_decl_in_body, 3150),
     (sym_extern_pragma, 7490), (sym_wasm_pragma, 3150), (sym_warn_pragma, 7490),
     (sym_allow_pragma, 3140), (sym_test_pragma, 7490), (sym_once_pragma, 7490),
     (sym_must_call_pragma, 7490), (sym_export_pragma, 7490), (sym_pou_pragma, 7194),
     (sym_direct_variable, 7675), (sym_deref_expression, 2373), (sym_variable, 7599),
     (sym_var_access, 2373), (sym_input_decls, 3196), (sym_output_decls, 3196),
     (sym_in_out_decls, 3196), (sym_var_decls, 3196), (sym_temp_var_decls, 3196),
     (sym_external_var_decls, 3197), (sym_global_var_decls, 2947), (sym_func_body, 9329),
     (sym_method_decl, 3159), (sym__method_decl_variables, 2368), (sym_prog_access_decls, 3043),
     (sym_config_init, 3047), (sym_variable_access, 7530), (sym_func_call, 2961),
     (sym_stmt_list, 8165), (sym__stmt, 2024), (sym_assign, 3150), (sym_if_stmt, 3150),
     (sym_case_stmt, 3150), (sym_for_stmt, 3150), (sym_while_stmt, 3150), (sym_repeat_stmt, 3150),
     (sym_raise_stmt, 3150), (sym_try_stmt, 3150), (sym_ERR_clause_outside_try, 3150),
     (sym_begin_path_expression, 2943), (sym_invocation, 2934), (sym_any_invocation, 2935),
     (sym_this_invocation, 2641), (sym_super_invocation, 2641), (sym_super_body_invocation, 2935),
     (sym_path_expression, 2627), (sym_field_expression, 2373), (sym_index_expression, 2373),
     (sym_ladder_diagram, 8165), (sym_fb_diagram, 8165), (aux_sym_func_decl_repeat1, 7194),
     (aux_sym_method_decl_repeat1, 2368), (aux_sym_stmt_list_repeat1, 2024),
     (aux_sym_ladder_diagram_repeat1, 7628), (aux_sym_fb_diagram_repeat1, 7633),
     (sym_identifier, 298), (aux_sym_ERR_unexpected_this_in_path_token1, 304),
     (aux_sym_ERR_unexpected_super_in_path_token1, 306), (sym_line_comment, 3),
     (anon_sym_LBRACE, 308), (aux_sym_test_pragma_token1, 9), (aux_sym_once_pragma_token1, 11),
     (aux_sym_must_call_pragma_token1, 13), (aux_sym_export_pragma_token1, 15),
     (anon_sym_SEMI, 310), (anon_sym_PERCENT, 312), (aux_sym_input_decls_token1, 2094),
     (aux_sym_output_decls_token1, 2096), (aux_sym_in_out_decls_token1, 318),
     (aux_sym_var_decls_token1, 2098), (aux_sym_temp_var_decls_token1, 322),
     (aux_sym_external_var_decls_token1, 324), (aux_sym_global_var_decls_token1, 326),
     (aux_sym_method_decl_token1, 330), (aux_sym_method_decl_token3, 2442),
     (aux_sym_prog_access_decls_token1, 332), (aux_sym_config_init_token1, 336),
     (aux_sym__stmt_token1, 340), (aux_sym__stmt_token2, 340), (aux_sym__stmt_token3, 340),
     (aux_sym_if_stmt_token1, 342), (aux_sym_case_stmt_token1, 344), (aux_sym_for_stmt_token1, 346),
     (aux_sym_while_stmt_token1, 348), (aux_sym_repeat_stmt_token1, 350),
     (aux_sym_raise_stmt_token1, 352), (aux_sym_try_stmt_token1, 354),
     (aux_sym_try_stmt_token2, 356), (aux_sym_catch_clause_token1, 356),
     (aux_sym_finally_clause_token1, 356), (sym_ld_rung, 2102), (sym_fbd_network, 2104),
     (sym_c_style_comment, 3), (sym_pascal_style_comment, 3), (sym_pragma, 3)]"

lemma ts_parse_row_991_scan: "row_scan tokens_63_2 0 ts_parse_row_991 = Some (Suc (Suc (Suc (Suc 0))))"
  unfolding ts_parse_row_991_def by simp

text \<open>Lines 166414 to 166517.\<close>

definition ts_parse_row_992 :: parse_row where
  "ts_parse_row_992 =
    [(sym_ERR_assign_func_call, 7530), (sym_ERR_unexpected_this_in_path, 2372),
     (sym_ERR_unexpected_super_in_path, 2372), (sym_ERR_var_access_not_allowed, 3196),
     (sym_ERR_var_config_not_allowed, 3196), (sym_ERR_var_external_not_allowed, 3196),
     (sym_ERR_var_global_not_allowed, 3196), (sym_ERR_method_decl_in_body, 3150),
     (sym_extern_pragma, 7490), (sym_wasm_pragma, 3150), (sym_warn_pragma, 7490),
     (sym_allow_pragma, 3140), (sym_test_pragma, 7490), (sym_once_pragma, 7490),
     (sym_must_call_pragma, 7490), (sym_export_pragma, 7490), (sym_pou_pragma, 7194),
     (sym_direct_variable, 7675), (sym_deref_expression, 2373), (sym_variable, 7599),
     (sym_var_access, 2373), (sym_input_decls, 3196), (sym_output_decls, 3196),
     (sym_in_out_decls, 3196), (sym_var_decls, 3196), (sym_temp_var_decls, 3196),
     (sym_external_var_decls, 3197), (sym_global_var_decls, 2947), (sym_func_body, 10184),
     (sym_method_decl, 3159), (sym__method_decl_variables, 2368), (sym_prog_access_decls, 3043),
     (sym_config_init, 3047), (sym_variable_access, 7530), (sym_func_call, 2961),
     (sym_stmt_list, 8165), (sym__stmt, 2024), (sym_assign, 3150), (sym_if_stmt, 3150),
     (sym_case_stmt, 3150), (sym_for_stmt, 3150), (sym_while_stmt, 3150), (sym_repeat_stmt, 3150),
     (sym_raise_stmt, 3150), (sym_try_stmt, 3150), (sym_ERR_clause_outside_try, 3150),
     (sym_begin_path_expression, 2943), (sym_invocation, 2934), (sym_any_invocation, 2935),
     (sym_this_invocation, 2641), (sym_super_invocation, 2641), (sym_super_body_invocation, 2935),
     (sym_path_expression, 2627), (sym_field_expression, 2373), (sym_index_expression, 2373),
     (sym_ladder_diagram, 8165), (sym_fb_diagram, 8165), (aux_sym_func_decl_repeat1, 7194),
     (aux_sym_method_decl_repeat1, 2368), (aux_sym_stmt_list_repeat1, 2024),
     (aux_sym_ladder_diagram_repeat1, 7628), (aux_sym_fb_diagram_repeat1, 7633),
     (sym_identifier, 298), (aux_sym_ERR_unexpected_this_in_path_token1, 304),
     (aux_sym_ERR_unexpected_super_in_path_token1, 306), (sym_line_comment, 3),
     (anon_sym_LBRACE, 308), (aux_sym_test_pragma_token1, 9), (aux_sym_once_pragma_token1, 11),
     (aux_sym_must_call_pragma_token1, 13), (aux_sym_export_pragma_token1, 15),
     (anon_sym_SEMI, 310), (anon_sym_PERCENT, 312), (aux_sym_input_decls_token1, 2094),
     (aux_sym_output_decls_token1, 2096), (aux_sym_in_out_decls_token1, 318),
     (aux_sym_var_decls_token1, 2098), (aux_sym_temp_var_decls_token1, 322),
     (aux_sym_external_var_decls_token1, 324), (aux_sym_global_var_decls_token1, 326),
     (aux_sym_method_decl_token1, 330), (aux_sym_method_decl_token3, 2444),
     (aux_sym_prog_access_decls_token1, 332), (aux_sym_config_init_token1, 336),
     (aux_sym__stmt_token1, 340), (aux_sym__stmt_token2, 340), (aux_sym__stmt_token3, 340),
     (aux_sym_if_stmt_token1, 342), (aux_sym_case_stmt_token1, 344), (aux_sym_for_stmt_token1, 346),
     (aux_sym_while_stmt_token1, 348), (aux_sym_repeat_stmt_token1, 350),
     (aux_sym_raise_stmt_token1, 352), (aux_sym_try_stmt_token1, 354),
     (aux_sym_try_stmt_token2, 356), (aux_sym_catch_clause_token1, 356),
     (aux_sym_finally_clause_token1, 356), (sym_ld_rung, 2102), (sym_fbd_network, 2104),
     (sym_c_style_comment, 3), (sym_pascal_style_comment, 3), (sym_pragma, 3)]"

lemma ts_parse_row_992_scan: "row_scan tokens_63_2 0 ts_parse_row_992 = Some (Suc (Suc (Suc (Suc 0))))"
  unfolding ts_parse_row_992_def by simp

text \<open>Lines 166518 to 166621.\<close>

definition ts_parse_row_993 :: parse_row where
  "ts_parse_row_993 =
    [(sym_ERR_assign_func_call, 7530), (sym_ERR_unexpected_this_in_path, 2372),
     (sym_ERR_unexpected_super_in_path, 2372), (sym_ERR_var_access_not_allowed, 3196),
     (sym_ERR_var_config_not_allowed, 3196), (sym_ERR_var_external_not_allowed, 3196),
     (sym_ERR_var_global_not_allowed, 3196), (sym_ERR_method_decl_in_body, 3150),
     (sym_extern_pragma, 7490), (sym_wasm_pragma, 3150), (sym_warn_pragma, 7490),
     (sym_allow_pragma, 3140), (sym_test_pragma, 7490), (sym_once_pragma, 7490),
     (sym_must_call_pragma, 7490), (sym_export_pragma, 7490), (sym_pou_pragma, 7194),
     (sym_direct_variable, 7675), (sym_deref_expression, 2373), (sym_variable, 7599),
     (sym_var_access, 2373), (sym_input_decls, 3196), (sym_output_decls, 3196),
     (sym_in_out_decls, 3196), (sym_var_decls, 3196), (sym_temp_var_decls, 3196),
     (sym_external_var_decls, 3197), (sym_global_var_decls, 2947), (sym_func_body, 10186),
     (sym_method_decl, 3159), (sym__method_decl_variables, 2368), (sym_prog_access_decls, 3043),
     (sym_config_init, 3047), (sym_variable_access, 7530), (sym_func_call, 2961),
     (sym_stmt_list, 8165), (sym__stmt, 2024), (sym_assign, 3150), (sym_if_stmt, 3150),
     (sym_case_stmt, 3150), (sym_for_stmt, 3150), (sym_while_stmt, 3150), (sym_repeat_stmt, 3150),
     (sym_raise_stmt, 3150), (sym_try_stmt, 3150), (sym_ERR_clause_outside_try, 3150),
     (sym_begin_path_expression, 2943), (sym_invocation, 2934), (sym_any_invocation, 2935),
     (sym_this_invocation, 2641), (sym_super_invocation, 2641), (sym_super_body_invocation, 2935),
     (sym_path_expression, 2627), (sym_field_expression, 2373), (sym_index_expression, 2373),
     (sym_ladder_diagram, 8165), (sym_fb_diagram, 8165), (aux_sym_func_decl_repeat1, 7194),
     (aux_sym_method_decl_repeat1, 2368), (aux_sym_stmt_list_repeat1, 2024),
     (aux_sym_ladder_diagram_repeat1, 7628), (aux_sym_fb_diagram_repeat1, 7633),
     (sym_identifier, 298), (aux_sym_ERR_unexpected_this_in_path_token1, 304),
     (aux_sym_ERR_unexpected_super_in_path_token1, 306), (sym_line_comment, 3),
     (anon_sym_LBRACE, 308), (aux_sym_test_pragma_token1, 9), (aux_sym_once_pragma_token1, 11),
     (aux_sym_must_call_pragma_token1, 13), (aux_sym_export_pragma_token1, 15),
     (anon_sym_SEMI, 310), (anon_sym_PERCENT, 312), (aux_sym_input_decls_token1, 2094),
     (aux_sym_output_decls_token1, 2096), (aux_sym_in_out_decls_token1, 318),
     (aux_sym_var_decls_token1, 2098), (aux_sym_temp_var_decls_token1, 322),
     (aux_sym_external_var_decls_token1, 324), (aux_sym_global_var_decls_token1, 326),
     (aux_sym_method_decl_token1, 330), (aux_sym_method_decl_token3, 2446),
     (aux_sym_prog_access_decls_token1, 332), (aux_sym_config_init_token1, 336),
     (aux_sym__stmt_token1, 340), (aux_sym__stmt_token2, 340), (aux_sym__stmt_token3, 340),
     (aux_sym_if_stmt_token1, 342), (aux_sym_case_stmt_token1, 344), (aux_sym_for_stmt_token1, 346),
     (aux_sym_while_stmt_token1, 348), (aux_sym_repeat_stmt_token1, 350),
     (aux_sym_raise_stmt_token1, 352), (aux_sym_try_stmt_token1, 354),
     (aux_sym_try_stmt_token2, 356), (aux_sym_catch_clause_token1, 356),
     (aux_sym_finally_clause_token1, 356), (sym_ld_rung, 2102), (sym_fbd_network, 2104),
     (sym_c_style_comment, 3), (sym_pascal_style_comment, 3), (sym_pragma, 3)]"

lemma ts_parse_row_993_scan: "row_scan tokens_63_2 0 ts_parse_row_993 = Some (Suc (Suc (Suc (Suc 0))))"
  unfolding ts_parse_row_993_def by simp

text \<open>Lines 166622 to 166725.\<close>

definition ts_parse_row_994 :: parse_row where
  "ts_parse_row_994 =
    [(sym_ERR_assign_func_call, 7530), (sym_ERR_unexpected_this_in_path, 2372),
     (sym_ERR_unexpected_super_in_path, 2372), (sym_ERR_var_access_not_allowed, 3196),
     (sym_ERR_var_config_not_allowed, 3196), (sym_ERR_var_external_not_allowed, 3196),
     (sym_ERR_var_global_not_allowed, 3196), (sym_ERR_method_decl_in_body, 3150),
     (sym_extern_pragma, 7490), (sym_wasm_pragma, 3150), (sym_warn_pragma, 7490),
     (sym_allow_pragma, 3140), (sym_test_pragma, 7490), (sym_once_pragma, 7490),
     (sym_must_call_pragma, 7490), (sym_export_pragma, 7490), (sym_pou_pragma, 7194),
     (sym_direct_variable, 7675), (sym_deref_expression, 2373), (sym_variable, 7599),
     (sym_var_access, 2373), (sym_input_decls, 3196), (sym_output_decls, 3196),
     (sym_in_out_decls, 3196), (sym_var_decls, 3196), (sym_temp_var_decls, 3196),
     (sym_external_var_decls, 3197), (sym_global_var_decls, 2947), (sym_func_body, 10187),
     (sym_method_decl, 3159), (sym__method_decl_variables, 1008), (sym_prog_access_decls, 3043),
     (sym_config_init, 3047), (sym_variable_access, 7530), (sym_func_call, 2961),
     (sym_stmt_list, 8165), (sym__stmt, 2024), (sym_assign, 3150), (sym_if_stmt, 3150),
     (sym_case_stmt, 3150), (sym_for_stmt, 3150), (sym_while_stmt, 3150), (sym_repeat_stmt, 3150),
     (sym_raise_stmt, 3150), (sym_try_stmt, 3150), (sym_ERR_clause_outside_try, 3150),
     (sym_begin_path_expression, 2943), (sym_invocation, 2934), (sym_any_invocation, 2935),
     (sym_this_invocation, 2641), (sym_super_invocation, 2641), (sym_super_body_invocation, 2935),
     (sym_path_expression, 2627), (sym_field_expression, 2373), (sym_index_expression, 2373),
     (sym_ladder_diagram, 8165), (sym_fb_diagram, 8165), (aux_sym_func_decl_repeat1, 7194),
     (aux_sym_method_decl_repeat1, 1008), (aux_sym_stmt_list_repeat1, 2024),
     (aux_sym_ladder_diagram_repeat1, 7628), (aux_sym_fb_diagram_repeat1, 7633),
     (sym_identifier, 298), (aux_sym_ERR_unexpected_this_in_path_token1, 304),
     (aux_sym_ERR_unexpected_super_in_path_token1, 306), (sym_line_comment, 3),
     (anon_sym_LBRACE, 308), (aux_sym_test_pragma_token1, 9), (aux_sym_once_pragma_token1, 11),
     (aux_sym_must_call_pragma_token1, 13), (aux_sym_export_pragma_token1, 15),
     (anon_sym_SEMI, 310), (anon_sym_PERCENT, 312), (aux_sym_input_decls_token1, 2094),
     (aux_sym_output_decls_token1, 2096), (aux_sym_in_out_decls_token1, 318),
     (aux_sym_var_decls_token1, 2098), (aux_sym_temp_var_decls_token1, 322),
     (aux_sym_external_var_decls_token1, 324), (aux_sym_global_var_decls_token1, 326),
     (aux_sym_method_decl_token1, 330), (aux_sym_method_decl_token3, 2448),
     (aux_sym_prog_access_decls_token1, 332), (aux_sym_config_init_token1, 336),
     (aux_sym__stmt_token1, 340), (aux_sym__stmt_token2, 340), (aux_sym__stmt_token3, 340),
     (aux_sym_if_stmt_token1, 342), (aux_sym_case_stmt_token1, 344), (aux_sym_for_stmt_token1, 346),
     (aux_sym_while_stmt_token1, 348), (aux_sym_repeat_stmt_token1, 350),
     (aux_sym_raise_stmt_token1, 352), (aux_sym_try_stmt_token1, 354),
     (aux_sym_try_stmt_token2, 356), (aux_sym_catch_clause_token1, 356),
     (aux_sym_finally_clause_token1, 356), (sym_ld_rung, 2102), (sym_fbd_network, 2104),
     (sym_c_style_comment, 3), (sym_pascal_style_comment, 3), (sym_pragma, 3)]"

lemma ts_parse_row_994_scan: "row_scan tokens_63_2 0 ts_parse_row_994 = Some (Suc (Suc (Suc (Suc 0))))"
  unfolding ts_parse_row_994_def by simp

text \<open>Lines 166726 to 166829.\<close>

definition ts_parse_row_995 :: parse_row where
  "ts_parse_row_995 =
    [(sym_ERR_assign_func_call, 7530), (sym_ERR_unexpected_this_in_path, 2372),
     (sym_ERR_unexpected_super_in_path, 2372), (sym_ERR_var_access_not_allowed, 3196),
     (sym_ERR_var_config_not_allowed, 3196), (sym_ERR_var_external_not_allowed, 3196),
     (sym_ERR_var_global_not_allowed, 3196), (sym_ERR_method_decl_in_body, 3150),
     (sym_extern_pragma, 7490), (sym_wasm_pragma, 3150), (sym_warn_pragma, 7490),
     (sym_allow_pragma, 3140), (sym_test_pragma, 7490), (sym_once_pragma, 7490),
     (sym_must_call_pragma, 7490), (sym_export_pragma, 7490), (sym_pou_pragma, 7194),
     (sym_direct_variable, 7675), (sym_deref_expression, 2373), (sym_variable, 7599),
     (sym_var_access, 2373), (sym_input_decls, 3196), (sym_output_decls, 3196),
     (sym_in_out_decls, 3196), (sym_var_decls, 3196), (sym_temp_var_decls, 3196),
     (sym_external_var_decls, 3197), (sym_global_var_decls, 2947), (sym_func_body, 9335),
     (sym_method_decl, 3159), (sym__method_decl_variables, 2368), (sym_prog_access_decls, 3043),
     (sym_config_init, 3047), (sym_variable_access, 7530), (sym_func_call, 2961),
     (sym_stmt_list, 8165), (sym__stmt, 2024), (sym_assign, 3150), (sym_if_stmt, 3150),
     (sym_case_stmt, 3150), (sym_for_stmt, 3150), (sym_while_stmt, 3150), (sym_repeat_stmt, 3150),
     (sym_raise_stmt, 3150), (sym_try_stmt, 3150), (sym_ERR_clause_outside_try, 3150),
     (sym_begin_path_expression, 2943), (sym_invocation, 2934), (sym_any_invocation, 2935),
     (sym_this_invocation, 2641), (sym_super_invocation, 2641), (sym_super_body_invocation, 2935),
     (sym_path_expression, 2627), (sym_field_expression, 2373), (sym_index_expression, 2373),
     (sym_ladder_diagram, 8165), (sym_fb_diagram, 8165), (aux_sym_func_decl_repeat1, 7194),
     (aux_sym_method_decl_repeat1, 2368), (aux_sym_stmt_list_repeat1, 2024),
     (aux_sym_ladder_diagram_repeat1, 7628), (aux_sym_fb_diagram_repeat1, 7633),
     (sym_identifier, 298), (aux_sym_ERR_unexpected_this_in_path_token1, 304),
     (aux_sym_ERR_unexpected_super_in_path_token1, 306), (sym_line_comment, 3),
     (anon_sym_LBRACE, 308), (aux_sym_test_pragma_token1, 9), (aux_sym_once_pragma_token1, 11),
     (aux_sym_must_call_pragma_token1, 13), (aux_sym_export_pragma_token1, 15),
     (anon_sym_SEMI, 310), (anon_sym_PERCENT, 312), (aux_sym_input_decls_token1, 2094),
     (aux_sym_output_decls_token1, 2096), (aux_sym_in_out_decls_token1, 318),
     (aux_sym_var_decls_token1, 2098), (aux_sym_temp_var_decls_token1, 322),
     (aux_sym_external_var_decls_token1, 324), (aux_sym_global_var_decls_token1, 326),
     (aux_sym_method_decl_token1, 330), (aux_sym_method_decl_token3, 2450),
     (aux_sym_prog_access_decls_token1, 332), (aux_sym_config_init_token1, 336),
     (aux_sym__stmt_token1, 340), (aux_sym__stmt_token2, 340), (aux_sym__stmt_token3, 340),
     (aux_sym_if_stmt_token1, 342), (aux_sym_case_stmt_token1, 344), (aux_sym_for_stmt_token1, 346),
     (aux_sym_while_stmt_token1, 348), (aux_sym_repeat_stmt_token1, 350),
     (aux_sym_raise_stmt_token1, 352), (aux_sym_try_stmt_token1, 354),
     (aux_sym_try_stmt_token2, 356), (aux_sym_catch_clause_token1, 356),
     (aux_sym_finally_clause_token1, 356), (sym_ld_rung, 2102), (sym_fbd_network, 2104),
     (sym_c_style_comment, 3), (sym_pascal_style_comment, 3), (sym_pragma, 3)]"

lemma ts_parse_row_995_scan: "row_scan tokens_63_2 0 ts_parse_row_995 = Some (Suc (Suc (Suc (Suc 0))))"
  unfolding ts_parse_row_995_def by simp

text \<open>Lines 166830 to 166933.\<close>

definition ts_parse_row_996 :: parse_row where
  "ts_parse_row_996 =
    [(sym_ERR_assign_func_call, 7530), (sym_ERR_unexpected_this_in_path, 2372),
     (sym_ERR_unexpected_super_in_path, 2372), (sym_ERR_var_access_not_allowed, 3196),
     (sym_ERR_var_config_not_allowed, 3196), (sym_ERR_var_external_not_allowed, 3196),
     (sym_ERR_var_global_not_allowed, 3196), (sym_ERR_method_decl_in_body, 3150),
     (sym_extern_pragma, 7490), (sym_wasm_pragma, 3150), (sym_warn_pragma, 7490),
     (sym_allow_pragma, 3140), (sym_test_pragma, 7490), (sym_once_pragma, 7490),
     (sym_must_call_pragma, 7490), (sym_export_pragma, 7490), (sym_pou_pragma, 7194),
     (sym_direct_variable, 7675), (sym_deref_expression, 2373), (sym_variable, 7599),
     (sym_var_access, 2373), (sym_input_decls, 3196), (sym_output_decls, 3196),
     (sym_in_out_decls, 3196), (sym_var_decls, 3196), (sym_temp_var_decls, 3196),
     (sym_external_var_decls, 3197), (sym_global_var_decls, 2947), (sym_func_body, 10196),
     (sym_method_decl, 3159), (sym__method_decl_variables, 2368), (sym_prog_access_decls, 3043),
     (sym_config_init, 3047), (sym_variable_access, 7530), (sym_func_call, 2961),
     (sym_stmt_list, 8165), (sym__stmt, 2024), (sym_assign, 3150), (sym_if_stmt, 3150),
     (sym_case_stmt, 3150), (sym_for_stmt, 3150), (sym_while_stmt, 3150), (sym_repeat_stmt, 3150),
     (sym_raise_stmt, 3150), (sym_try_stmt, 3150), (sym_ERR_clause_outside_try, 3150),
     (sym_begin_path_expression, 2943), (sym_invocation, 2934), (sym_any_invocation, 2935),
     (sym_this_invocation, 2641), (sym_super_invocation, 2641), (sym_super_body_invocation, 2935),
     (sym_path_expression, 2627), (sym_field_expression, 2373), (sym_index_expression, 2373),
     (sym_ladder_diagram, 8165), (sym_fb_diagram, 8165), (aux_sym_func_decl_repeat1, 7194),
     (aux_sym_method_decl_repeat1, 2368), (aux_sym_stmt_list_repeat1, 2024),
     (aux_sym_ladder_diagram_repeat1, 7628), (aux_sym_fb_diagram_repeat1, 7633),
     (sym_identifier, 298), (aux_sym_ERR_unexpected_this_in_path_token1, 304),
     (aux_sym_ERR_unexpected_super_in_path_token1, 306), (sym_line_comment, 3),
     (anon_sym_LBRACE, 308), (aux_sym_test_pragma_token1, 9), (aux_sym_once_pragma_token1, 11),
     (aux_sym_must_call_pragma_token1, 13), (aux_sym_export_pragma_token1, 15),
     (anon_sym_SEMI, 310), (anon_sym_PERCENT, 312), (aux_sym_input_decls_token1, 2094),
     (aux_sym_output_decls_token1, 2096), (aux_sym_in_out_decls_token1, 318),
     (aux_sym_var_decls_token1, 2098), (aux_sym_temp_var_decls_token1, 322),
     (aux_sym_external_var_decls_token1, 324), (aux_sym_global_var_decls_token1, 326),
     (aux_sym_method_decl_token1, 330), (aux_sym_method_decl_token3, 2452),
     (aux_sym_prog_access_decls_token1, 332), (aux_sym_config_init_token1, 336),
     (aux_sym__stmt_token1, 340), (aux_sym__stmt_token2, 340), (aux_sym__stmt_token3, 340),
     (aux_sym_if_stmt_token1, 342), (aux_sym_case_stmt_token1, 344), (aux_sym_for_stmt_token1, 346),
     (aux_sym_while_stmt_token1, 348), (aux_sym_repeat_stmt_token1, 350),
     (aux_sym_raise_stmt_token1, 352), (aux_sym_try_stmt_token1, 354),
     (aux_sym_try_stmt_token2, 356), (aux_sym_catch_clause_token1, 356),
     (aux_sym_finally_clause_token1, 356), (sym_ld_rung, 2102), (sym_fbd_network, 2104),
     (sym_c_style_comment, 3), (sym_pascal_style_comment, 3), (sym_pragma, 3)]"

lemma ts_parse_row_996_scan: "row_scan tokens_63_2 0 ts_parse_row_996 = Some (Suc (Suc (Suc (Suc 0))))"
  unfolding ts_parse_row_996_def by simp

text \<open>Lines 166934 to 167037.\<close>

definition ts_parse_row_997 :: parse_row where
  "ts_parse_row_997 =
    [(sym_ERR_assign_func_call, 7530), (sym_ERR_unexpected_this_in_path, 2372),
     (sym_ERR_unexpected_super_in_path, 2372), (sym_ERR_var_access_not_allowed, 3196),
     (sym_ERR_var_config_not_allowed, 3196), (sym_ERR_var_external_not_allowed, 3196),
     (sym_ERR_var_global_not_allowed, 3196), (sym_ERR_method_decl_in_body, 3150),
     (sym_extern_pragma, 7490), (sym_wasm_pragma, 3150), (sym_warn_pragma, 7490),
     (sym_allow_pragma, 3140), (sym_test_pragma, 7490), (sym_once_pragma, 7490),
     (sym_must_call_pragma, 7490), (sym_export_pragma, 7490), (sym_pou_pragma, 7194),
     (sym_direct_variable, 7675), (sym_deref_expression, 2373), (sym_variable, 7599),
     (sym_var_access, 2373), (sym_input_decls, 3196), (sym_output_decls, 3196),
     (sym_in_out_decls, 3196), (sym_var_decls, 3196), (sym_temp_var_decls, 3196),
     (sym_external_var_decls, 3197), (sym_global_var_decls, 2947), (sym_func_body, 10198),
     (sym_method_decl, 3159), (sym__method_decl_variables, 2368), (sym_prog_access_decls, 3043),
     (sym_config_init, 3047), (sym_variable_access, 7530), (sym_func_call, 2961),
     (sym_stmt_list, 8165), (sym__stmt, 2024), (sym_assign, 3150), (sym_if_stmt, 3150),
     (sym_case_stmt, 3150), (sym_for_stmt, 3150), (sym_while_stmt, 3150), (sym_repeat_stmt, 3150),
     (sym_raise_stmt, 3150), (sym_try_stmt, 3150), (sym_ERR_clause_outside_try, 3150),
     (sym_begin_path_expression, 2943), (sym_invocation, 2934), (sym_any_invocation, 2935),
     (sym_this_invocation, 2641), (sym_super_invocation, 2641), (sym_super_body_invocation, 2935),
     (sym_path_expression, 2627), (sym_field_expression, 2373), (sym_index_expression, 2373),
     (sym_ladder_diagram, 8165), (sym_fb_diagram, 8165), (aux_sym_func_decl_repeat1, 7194),
     (aux_sym_method_decl_repeat1, 2368), (aux_sym_stmt_list_repeat1, 2024),
     (aux_sym_ladder_diagram_repeat1, 7628), (aux_sym_fb_diagram_repeat1, 7633),
     (sym_identifier, 298), (aux_sym_ERR_unexpected_this_in_path_token1, 304),
     (aux_sym_ERR_unexpected_super_in_path_token1, 306), (sym_line_comment, 3),
     (anon_sym_LBRACE, 308), (aux_sym_test_pragma_token1, 9), (aux_sym_once_pragma_token1, 11),
     (aux_sym_must_call_pragma_token1, 13), (aux_sym_export_pragma_token1, 15),
     (anon_sym_SEMI, 310), (anon_sym_PERCENT, 312), (aux_sym_input_decls_token1, 2094),
     (aux_sym_output_decls_token1, 2096), (aux_sym_in_out_decls_token1, 318),
     (aux_sym_var_decls_token1, 2098), (aux_sym_temp_var_decls_token1, 322),
     (aux_sym_external_var_decls_token1, 324), (aux_sym_global_var_decls_token1, 326),
     (aux_sym_method_decl_token1, 330), (aux_sym_method_decl_token3, 2454),
     (aux_sym_prog_access_decls_token1, 332), (aux_sym_config_init_token1, 336),
     (aux_sym__stmt_token1, 340), (aux_sym__stmt_token2, 340), (aux_sym__stmt_token3, 340),
     (aux_sym_if_stmt_token1, 342), (aux_sym_case_stmt_token1, 344), (aux_sym_for_stmt_token1, 346),
     (aux_sym_while_stmt_token1, 348), (aux_sym_repeat_stmt_token1, 350),
     (aux_sym_raise_stmt_token1, 352), (aux_sym_try_stmt_token1, 354),
     (aux_sym_try_stmt_token2, 356), (aux_sym_catch_clause_token1, 356),
     (aux_sym_finally_clause_token1, 356), (sym_ld_rung, 2102), (sym_fbd_network, 2104),
     (sym_c_style_comment, 3), (sym_pascal_style_comment, 3), (sym_pragma, 3)]"

lemma ts_parse_row_997_scan: "row_scan tokens_63_2 0 ts_parse_row_997 = Some (Suc (Suc (Suc (Suc 0))))"
  unfolding ts_parse_row_997_def by simp

text \<open>Lines 167038 to 167141.\<close>

definition ts_parse_row_998 :: parse_row where
  "ts_parse_row_998 =
    [(sym_ERR_assign_func_call, 7530), (sym_ERR_unexpected_this_in_path, 2372),
     (sym_ERR_unexpected_super_in_path, 2372), (sym_ERR_var_access_not_allowed, 3196),
     (sym_ERR_var_config_not_allowed, 3196), (sym_ERR_var_external_not_allowed, 3196),
     (sym_ERR_var_global_not_allowed, 3196), (sym_ERR_method_decl_in_body, 3150),
     (sym_extern_pragma, 7490), (sym_wasm_pragma, 3150), (sym_warn_pragma, 7490),
     (sym_allow_pragma, 3140), (sym_test_pragma, 7490), (sym_once_pragma, 7490),
     (sym_must_call_pragma, 7490), (sym_export_pragma, 7490), (sym_pou_pragma, 7194),
     (sym_direct_variable, 7675), (sym_deref_expression, 2373), (sym_variable, 7599),
     (sym_var_access, 2373), (sym_input_decls, 3196), (sym_output_decls, 3196),
     (sym_in_out_decls, 3196), (sym_var_decls, 3196), (sym_temp_var_decls, 3196),
     (sym_external_var_decls, 3197), (sym_global_var_decls, 2947), (sym_func_body, 10199),
     (sym_method_decl, 3159), (sym__method_decl_variables, 1012), (sym_prog_access_decls, 3043),
     (sym_config_init, 3047), (sym_variable_access, 7530), (sym_func_call, 2961),
     (sym_stmt_list, 8165), (sym__stmt, 2024), (sym_assign, 3150), (sym_if_stmt, 3150),
     (sym_case_stmt, 3150), (sym_for_stmt, 3150), (sym_while_stmt, 3150), (sym_repeat_stmt, 3150),
     (sym_raise_stmt, 3150), (sym_try_stmt, 3150), (sym_ERR_clause_outside_try, 3150),
     (sym_begin_path_expression, 2943), (sym_invocation, 2934), (sym_any_invocation, 2935),
     (sym_this_invocation, 2641), (sym_super_invocation, 2641), (sym_super_body_invocation, 2935),
     (sym_path_expression, 2627), (sym_field_expression, 2373), (sym_index_expression, 2373),
     (sym_ladder_diagram, 8165), (sym_fb_diagram, 8165), (aux_sym_func_decl_repeat1, 7194),
     (aux_sym_method_decl_repeat1, 1012), (aux_sym_stmt_list_repeat1, 2024),
     (aux_sym_ladder_diagram_repeat1, 7628), (aux_sym_fb_diagram_repeat1, 7633),
     (sym_identifier, 298), (aux_sym_ERR_unexpected_this_in_path_token1, 304),
     (aux_sym_ERR_unexpected_super_in_path_token1, 306), (sym_line_comment, 3),
     (anon_sym_LBRACE, 308), (aux_sym_test_pragma_token1, 9), (aux_sym_once_pragma_token1, 11),
     (aux_sym_must_call_pragma_token1, 13), (aux_sym_export_pragma_token1, 15),
     (anon_sym_SEMI, 310), (anon_sym_PERCENT, 312), (aux_sym_input_decls_token1, 2094),
     (aux_sym_output_decls_token1, 2096), (aux_sym_in_out_decls_token1, 318),
     (aux_sym_var_decls_token1, 2098), (aux_sym_temp_var_decls_token1, 322),
     (aux_sym_external_var_decls_token1, 324), (aux_sym_global_var_decls_token1, 326),
     (aux_sym_method_decl_token1, 330), (aux_sym_method_decl_token3, 2456),
     (aux_sym_prog_access_decls_token1, 332), (aux_sym_config_init_token1, 336),
     (aux_sym__stmt_token1, 340), (aux_sym__stmt_token2, 340), (aux_sym__stmt_token3, 340),
     (aux_sym_if_stmt_token1, 342), (aux_sym_case_stmt_token1, 344), (aux_sym_for_stmt_token1, 346),
     (aux_sym_while_stmt_token1, 348), (aux_sym_repeat_stmt_token1, 350),
     (aux_sym_raise_stmt_token1, 352), (aux_sym_try_stmt_token1, 354),
     (aux_sym_try_stmt_token2, 356), (aux_sym_catch_clause_token1, 356),
     (aux_sym_finally_clause_token1, 356), (sym_ld_rung, 2102), (sym_fbd_network, 2104),
     (sym_c_style_comment, 3), (sym_pascal_style_comment, 3), (sym_pragma, 3)]"

lemma ts_parse_row_998_scan: "row_scan tokens_63_2 0 ts_parse_row_998 = Some (Suc (Suc (Suc (Suc 0))))"
  unfolding ts_parse_row_998_def by simp

text \<open>Lines 167142 to 167245.\<close>

definition ts_parse_row_999 :: parse_row where
  "ts_parse_row_999 =
    [(sym_ERR_assign_func_call, 7530), (sym_ERR_unexpected_this_in_path, 2372),
     (sym_ERR_unexpected_super_in_path, 2372), (sym_ERR_var_access_not_allowed, 3196),
     (sym_ERR_var_config_not_allowed, 3196), (sym_ERR_var_external_not_allowed, 3196),
     (sym_ERR_var_global_not_allowed, 3196), (sym_ERR_method_decl_in_body, 3150),
     (sym_extern_pragma, 7490), (sym_wasm_pragma, 3150), (sym_warn_pragma, 7490),
     (sym_allow_pragma, 3140), (sym_test_pragma, 7490), (sym_once_pragma, 7490),
     (sym_must_call_pragma, 7490), (sym_export_pragma, 7490), (sym_pou_pragma, 7194),
     (sym_direct_variable, 7675), (sym_deref_expression, 2373), (sym_variable, 7599),
     (sym_var_access, 2373), (sym_input_decls, 3196), (sym_output_decls, 3196),
     (sym_in_out_decls, 3196), (sym_var_decls, 3196), (sym_temp_var_decls, 3196),
     (sym_external_var_decls, 3197), (sym_global_var_decls, 2947), (sym_func_body, 9340),
     (sym_method_decl, 3159), (sym__method_decl_variables, 1075), (sym_prog_access_decls, 3043),
     (sym_config_init, 3047), (sym_variable_access, 7530), (sym_func_call, 2961),
     (sym_stmt_list, 8165), (sym__stmt, 2024), (sym_assign, 3150), (sym_if_stmt, 3150),
     (sym_case_stmt, 3150), (sym_for_stmt, 3150), (sym_while_stmt, 3150), (sym_repeat_stmt, 3150),
     (sym_raise_stmt, 3150), (sym_try_stmt, 3150), (sym_ERR_clause_outside_try, 3150),
     (sym_begin_path_expression, 2943), (sym_invocation, 2934), (sym_any_invocation, 2935),
     (sym_this_invocation, 2641), (sym_super_invocation, 2641), (sym_super_body_invocation, 2935),
     (sym_path_expression, 2627), (sym_field_expression, 2373), (sym_index_expression, 2373),
     (sym_ladder_diagram, 8165), (sym_fb_diagram, 8165), (aux_sym_func_decl_repeat1, 7194),
     (aux_sym_method_decl_repeat1, 1075), (aux_sym_stmt_list_repeat1, 2024),
     (aux_sym_ladder_diagram_repeat1, 7628), (aux_sym_fb_diagram_repeat1, 7633),
     (sym_identifier, 298), (aux_sym_ERR_unexpected_this_in_path_token1, 304),
     (aux_sym_ERR_unexpected_super_in_path_token1, 306), (sym_line_comment, 3),
     (anon_sym_LBRACE, 308), (aux_sym_test_pragma_token1, 9), (aux_sym_once_pragma_token1, 11),
     (aux_sym_must_call_pragma_token1, 13), (aux_sym_export_pragma_token1, 15),
     (anon_sym_SEMI, 310), (anon_sym_PERCENT, 312), (aux_sym_input_decls_token1, 2094),
     (aux_sym_output_decls_token1, 2096), (aux_sym_in_out_decls_token1, 318),
     (aux_sym_var_decls_token1, 2098), (aux_sym_temp_var_decls_token1, 322),
     (aux_sym_external_var_decls_token1, 324), (aux_sym_global_var_decls_token1, 326),
     (aux_sym_method_decl_token1, 330), (aux_sym_method_decl_token3, 2458),
     (aux_sym_prog_access_decls_token1, 332), (aux_sym_config_init_token1, 336),
     (aux_sym__stmt_token1, 340), (aux_sym__stmt_token2, 340), (aux_sym__stmt_token3, 340),
     (aux_sym_if_stmt_token1, 342), (aux_sym_case_stmt_token1, 344), (aux_sym_for_stmt_token1, 346),
     (aux_sym_while_stmt_token1, 348), (aux_sym_repeat_stmt_token1, 350),
     (aux_sym_raise_stmt_token1, 352), (aux_sym_try_stmt_token1, 354),
     (aux_sym_try_stmt_token2, 356), (aux_sym_catch_clause_token1, 356),
     (aux_sym_finally_clause_token1, 356), (sym_ld_rung, 2102), (sym_fbd_network, 2104),
     (sym_c_style_comment, 3), (sym_pascal_style_comment, 3), (sym_pragma, 3)]"

lemma ts_parse_row_999_scan: "row_scan tokens_63_2 0 ts_parse_row_999 = Some (Suc (Suc (Suc (Suc 0))))"
  unfolding ts_parse_row_999_def by simp

text \<open>Lines 167246 to 167349.\<close>

definition ts_parse_row_1000 :: parse_row where
  "ts_parse_row_1000 =
    [(sym_ERR_assign_func_call, 7530), (sym_ERR_unexpected_this_in_path, 2372),
     (sym_ERR_unexpected_super_in_path, 2372), (sym_ERR_var_access_not_allowed, 3196),
     (sym_ERR_var_config_not_allowed, 3196), (sym_ERR_var_external_not_allowed, 3196),
     (sym_ERR_var_global_not_allowed, 3196), (sym_ERR_method_decl_in_body, 3150),
     (sym_extern_pragma, 7490), (sym_wasm_pragma, 3150), (sym_warn_pragma, 7490),
     (sym_allow_pragma, 3140), (sym_test_pragma, 7490), (sym_once_pragma, 7490),
     (sym_must_call_pragma, 7490), (sym_export_pragma, 7490), (sym_pou_pragma, 7194),
     (sym_direct_variable, 7675), (sym_deref_expression, 2373), (sym_variable, 7599),
     (sym_var_access, 2373), (sym_input_decls, 3196), (sym_output_decls, 3196),
     (sym_in_out_decls, 3196), (sym_var_decls, 3196), (sym_temp_var_decls, 3196),
     (sym_external_var_decls, 3197), (sym_global_var_decls, 2947), (sym_func_body, 9345),
     (sym_method_decl, 3159), (sym__method_decl_variables, 2368), (sym_prog_access_decls, 3043),
     (sym_config_init, 3047), (sym_variable_access, 7530), (sym_func_call, 2961),
     (sym_stmt_list, 8165), (sym__stmt, 2024), (sym_assign, 3150), (sym_if_stmt, 3150),
     (sym_case_stmt, 3150), (sym_for_stmt, 3150), (sym_while_stmt, 3150), (sym_repeat_stmt, 3150),
     (sym_raise_stmt, 3150), (sym_try_stmt, 3150), (sym_ERR_clause_outside_try, 3150),
     (sym_begin_path_expression, 2943), (sym_invocation, 2934), (sym_any_invocation, 2935),
     (sym_this_invocation, 2641), (sym_super_invocation, 2641), (sym_super_body_invocation, 2935),
     (sym_path_expression, 2627), (sym_field_expression, 2373), (sym_index_expression, 2373),
     (sym_ladder_diagram, 8165), (sym_fb_diagram, 8165), (aux_sym_func_decl_repeat1, 7194),
     (aux_sym_method_decl_repeat1, 2368), (aux_sym_stmt_list_repeat1, 2024),
     (aux_sym_ladder_diagram_repeat1, 7628), (aux_sym_fb_diagram_repeat1, 7633),
     (sym_identifier, 298), (aux_sym_ERR_unexpected_this_in_path_token1, 304),
     (aux_sym_ERR_unexpected_super_in_path_token1, 306), (sym_line_comment, 3),
     (anon_sym_LBRACE, 308), (aux_sym_test_pragma_token1, 9), (aux_sym_once_pragma_token1, 11),
     (aux_sym_must_call_pragma_token1, 13), (aux_sym_export_pragma_token1, 15),
     (anon_sym_SEMI, 310), (anon_sym_PERCENT, 312), (aux_sym_input_decls_token1, 2094),
     (aux_sym_output_decls_token1, 2096), (aux_sym_in_out_decls_token1, 318),
     (aux_sym_var_decls_token1, 2098), (aux_sym_temp_var_decls_token1, 322),
     (aux_sym_external_var_decls_token1, 324), (aux_sym_global_var_decls_token1, 326),
     (aux_sym_method_decl_token1, 330), (aux_sym_method_decl_token3, 2460),
     (aux_sym_prog_access_decls_token1, 332), (aux_sym_config_init_token1, 336),
     (aux_sym__stmt_token1, 340), (aux_sym__stmt_token2, 340), (aux_sym__stmt_token3, 340),
     (aux_sym_if_stmt_token1, 342), (aux_sym_case_stmt_token1, 344), (aux_sym_for_stmt_token1, 346),
     (aux_sym_while_stmt_token1, 348), (aux_sym_repeat_stmt_token1, 350),
     (aux_sym_raise_stmt_token1, 352), (aux_sym_try_stmt_token1, 354),
     (aux_sym_try_stmt_token2, 356), (aux_sym_catch_clause_token1, 356),
     (aux_sym_finally_clause_token1, 356), (sym_ld_rung, 2102), (sym_fbd_network, 2104),
     (sym_c_style_comment, 3), (sym_pascal_style_comment, 3), (sym_pragma, 3)]"

lemma ts_parse_row_1000_scan: "row_scan tokens_63_2 0 ts_parse_row_1000 = Some (Suc (Suc (Suc (Suc 0))))"
  unfolding ts_parse_row_1000_def by simp

text \<open>Lines 167350 to 167453.\<close>

definition ts_parse_row_1001 :: parse_row where
  "ts_parse_row_1001 =
    [(sym_ERR_assign_func_call, 7530), (sym_ERR_unexpected_this_in_path, 2372),
     (sym_ERR_unexpected_super_in_path, 2372), (sym_ERR_var_access_not_allowed, 3196),
     (sym_ERR_var_config_not_allowed, 3196), (sym_ERR_var_external_not_allowed, 3196),
     (sym_ERR_var_global_not_allowed, 3196), (sym_ERR_method_decl_in_body, 3150),
     (sym_extern_pragma, 7490), (sym_wasm_pragma, 3150), (sym_warn_pragma, 7490),
     (sym_allow_pragma, 3140), (sym_test_pragma, 7490), (sym_once_pragma, 7490),
     (sym_must_call_pragma, 7490), (sym_export_pragma, 7490), (sym_pou_pragma, 7194),
     (sym_direct_variable, 7675), (sym_deref_expression, 2373), (sym_variable, 7599),
     (sym_var_access, 2373), (sym_input_decls, 3196), (sym_output_decls, 3196),
     (sym_in_out_decls, 3196), (sym_var_decls, 3196), (sym_temp_var_decls, 3196),
     (sym_external_var_decls, 3197), (sym_global_var_decls, 2947), (sym_func_body, 10207),
     (sym_method_decl, 3159), (sym__method_decl_variables, 2368), (sym_prog_access_decls, 3043),
     (sym_config_init, 3047), (sym_variable_access, 7530), (sym_func_call, 2961),
     (sym_stmt_list, 8165), (sym__stmt, 2024), (sym_assign, 3150), (sym_if_stmt, 3150),
     (sym_case_stmt, 3150), (sym_for_stmt, 3150), (sym_while_stmt, 3150), (sym_repeat_stmt, 3150),
     (sym_raise_stmt, 3150), (sym_try_stmt, 3150), (sym_ERR_clause_outside_try, 3150),
     (sym_begin_path_expression, 2943), (sym_invocation, 2934), (sym_any_invocation, 2935),
     (sym_this_invocation, 2641), (sym_super_invocation, 2641), (sym_super_body_invocation, 2935),
     (sym_path_expression, 2627), (sym_field_expression, 2373), (sym_index_expression, 2373),
     (sym_ladder_diagram, 8165), (sym_fb_diagram, 8165), (aux_sym_func_decl_repeat1, 7194),
     (aux_sym_method_decl_repeat1, 2368), (aux_sym_stmt_list_repeat1, 2024),
     (aux_sym_ladder_diagram_repeat1, 7628), (aux_sym_fb_diagram_repeat1, 7633),
     (sym_identifier, 298), (aux_sym_ERR_unexpected_this_in_path_token1, 304),
     (aux_sym_ERR_unexpected_super_in_path_token1, 306), (sym_line_comment, 3),
     (anon_sym_LBRACE, 308), (aux_sym_test_pragma_token1, 9), (aux_sym_once_pragma_token1, 11),
     (aux_sym_must_call_pragma_token1, 13), (aux_sym_export_pragma_token1, 15),
     (anon_sym_SEMI, 310), (anon_sym_PERCENT, 312), (aux_sym_input_decls_token1, 2094),
     (aux_sym_output_decls_token1, 2096), (aux_sym_in_out_decls_token1, 318),
     (aux_sym_var_decls_token1, 2098), (aux_sym_temp_var_decls_token1, 322),
     (aux_sym_external_var_decls_token1, 324), (aux_sym_global_var_decls_token1, 326),
     (aux_sym_method_decl_token1, 330), (aux_sym_method_decl_token3, 2462),
     (aux_sym_prog_access_decls_token1, 332), (aux_sym_config_init_token1, 336),
     (aux_sym__stmt_token1, 340), (aux_sym__stmt_token2, 340), (aux_sym__stmt_token3, 340),
     (aux_sym_if_stmt_token1, 342), (aux_sym_case_stmt_token1, 344), (aux_sym_for_stmt_token1, 346),
     (aux_sym_while_stmt_token1, 348), (aux_sym_repeat_stmt_token1, 350),
     (aux_sym_raise_stmt_token1, 352), (aux_sym_try_stmt_token1, 354),
     (aux_sym_try_stmt_token2, 356), (aux_sym_catch_clause_token1, 356),
     (aux_sym_finally_clause_token1, 356), (sym_ld_rung, 2102), (sym_fbd_network, 2104),
     (sym_c_style_comment, 3), (sym_pascal_style_comment, 3), (sym_pragma, 3)]"

lemma ts_parse_row_1001_scan: "row_scan tokens_63_2 0 ts_parse_row_1001 = Some (Suc (Suc (Suc (Suc 0))))"
  unfolding ts_parse_row_1001_def by simp

text \<open>Lines 167454 to 167557.\<close>

definition ts_parse_row_1002 :: parse_row where
  "ts_parse_row_1002 =
    [(sym_ERR_assign_func_call, 7530), (sym_ERR_unexpected_this_in_path, 2372),
     (sym_ERR_unexpected_super_in_path, 2372), (sym_ERR_var_access_not_allowed, 3196),
     (sym_ERR_var_config_not_allowed, 3196), (sym_ERR_var_external_not_allowed, 3196),
     (sym_ERR_var_global_not_allowed, 3196), (sym_ERR_method_decl_in_body, 3150),
     (sym_extern_pragma, 7490), (sym_wasm_pragma, 3150), (sym_warn_pragma, 7490),
     (sym_allow_pragma, 3140), (sym_test_pragma, 7490), (sym_once_pragma, 7490),
     (sym_must_call_pragma, 7490), (sym_export_pragma, 7490), (sym_pou_pragma, 7194),
     (sym_direct_variable, 7675), (sym_deref_expression, 2373), (sym_variable, 7599),
     (sym_var_access, 2373), (sym_input_decls, 3196), (sym_output_decls, 3196),
     (sym_in_out_decls, 3196), (sym_var_decls, 3196), (sym_temp_var_decls, 3196),
     (sym_external_var_decls, 3197), (sym_global_var_decls, 2947), (sym_func_body, 10208),
     (sym_method_decl, 3159), (sym__method_decl_variables, 1017), (sym_prog_access_decls, 3043),
     (sym_config_init, 3047), (sym_variable_access, 7530), (sym_func_call, 2961),
     (sym_stmt_list, 8165), (sym__stmt, 2024), (sym_assign, 3150), (sym_if_stmt, 3150),
     (sym_case_stmt, 3150), (sym_for_stmt, 3150), (sym_while_stmt, 3150), (sym_repeat_stmt, 3150),
     (sym_raise_stmt, 3150), (sym_try_stmt, 3150), (sym_ERR_clause_outside_try, 3150),
     (sym_begin_path_expression, 2943), (sym_invocation, 2934), (sym_any_invocation, 2935),
     (sym_this_invocation, 2641), (sym_super_invocation, 2641), (sym_super_body_invocation, 2935),
     (sym_path_expression, 2627), (sym_field_expression, 2373), (sym_index_expression, 2373),
     (sym_ladder_diagram, 8165), (sym_fb_diagram, 8165), (aux_sym_func_decl_repeat1, 7194),
     (aux_sym_method_decl_repeat1, 1017), (aux_sym_stmt_list_repeat1, 2024),
     (aux_sym_ladder_diagram_repeat1, 7628), (aux_sym_fb_diagram_repeat1, 7633),
     (sym_identifier, 298), (aux_sym_ERR_unexpected_this_in_path_token1, 304),
     (aux_sym_ERR_unexpected_super_in_path_token1, 306), (sym_line_comment, 3),
     (anon_sym_LBRACE, 308), (aux_sym_test_pragma_token1, 9), (aux_sym_once_pragma_token1, 11),
     (aux_sym_must_call_pragma_token1, 13), (aux_sym_export_pragma_token1, 15),
     (anon_sym_SEMI, 310), (anon_sym_PERCENT, 312), (aux_sym_input_decls_token1, 2094),
     (aux_sym_output_decls_token1, 2096), (aux_sym_in_out_decls_token1, 318),
     (aux_sym_var_decls_token1, 2098), (aux_sym_temp_var_decls_token1, 322),
     (aux_sym_external_var_decls_token1, 324), (aux_sym_global_var_decls_token1, 326),
     (aux_sym_method_decl_token1, 330), (aux_sym_method_decl_token3, 2464),
     (aux_sym_prog_access_decls_token1, 332), (aux_sym_config_init_token1, 336),
     (aux_sym__stmt_token1, 340), (aux_sym__stmt_token2, 340), (aux_sym__stmt_token3, 340),
     (aux_sym_if_stmt_token1, 342), (aux_sym_case_stmt_token1, 344), (aux_sym_for_stmt_token1, 346),
     (aux_sym_while_stmt_token1, 348), (aux_sym_repeat_stmt_token1, 350),
     (aux_sym_raise_stmt_token1, 352), (aux_sym_try_stmt_token1, 354),
     (aux_sym_try_stmt_token2, 356), (aux_sym_catch_clause_token1, 356),
     (aux_sym_finally_clause_token1, 356), (sym_ld_rung, 2102), (sym_fbd_network, 2104),
     (sym_c_style_comment, 3), (sym_pascal_style_comment, 3), (sym_pragma, 3)]"

lemma ts_parse_row_1002_scan: "row_scan tokens_63_2 0 ts_parse_row_1002 = Some (Suc (Suc (Suc (Suc 0))))"
  unfolding ts_parse_row_1002_def by simp

text \<open>Lines 167558 to 167661.\<close>

definition ts_parse_row_1003 :: parse_row where
  "ts_parse_row_1003 =
    [(sym_ERR_assign_func_call, 7530), (sym_ERR_unexpected_this_in_path, 2372),
     (sym_ERR_unexpected_super_in_path, 2372), (sym_ERR_var_access_not_allowed, 3196),
     (sym_ERR_var_config_not_allowed, 3196), (sym_ERR_var_external_not_allowed, 3196),
     (sym_ERR_var_global_not_allowed, 3196), (sym_ERR_method_decl_in_body, 3150),
     (sym_extern_pragma, 7490), (sym_wasm_pragma, 3150), (sym_warn_pragma, 7490),
     (sym_allow_pragma, 3140), (sym_test_pragma, 7490), (sym_once_pragma, 7490),
     (sym_must_call_pragma, 7490), (sym_export_pragma, 7490), (sym_pou_pragma, 7194),
     (sym_direct_variable, 7675), (sym_deref_expression, 2373), (sym_variable, 7599),
     (sym_var_access, 2373), (sym_input_decls, 3196), (sym_output_decls, 3196),
     (sym_in_out_decls, 3196), (sym_var_decls, 3196), (sym_temp_var_decls, 3196),
     (sym_external_var_decls, 3197), (sym_global_var_decls, 2947), (sym_func_body, 10210),
     (sym_method_decl, 3159), (sym__method_decl_variables, 2368), (sym_prog_access_decls, 3043),
     (sym_config_init, 3047), (sym_variable_access, 7530), (sym_func_call, 2961),
     (sym_stmt_list, 8165), (sym__stmt, 2024), (sym_assign, 3150), (sym_if_stmt, 3150),
     (sym_case_stmt, 3150), (sym_for_stmt, 3150), (sym_while_stmt, 3150), (sym_repeat_stmt, 3150),
     (sym_raise_stmt, 3150), (sym_try_stmt, 3150), (sym_ERR_clause_outside_try, 3150),
     (sym_begin_path_expression, 2943), (sym_invocation, 2934), (sym_any_invocation, 2935),
     (sym_this_invocation, 2641), (sym_super_invocation, 2641), (sym_super_body_invocation, 2935),
     (sym_path_expression, 2627), (sym_field_expression, 2373), (sym_index_expression, 2373),
     (sym_ladder_diagram, 8165), (sym_fb_diagram, 8165), (aux_sym_func_decl_repeat1, 7194),
     (aux_sym_method_decl_repeat1, 2368), (aux_sym_stmt_list_repeat1, 2024),
     (aux_sym_ladder_diagram_repeat1, 7628), (aux_sym_fb_diagram_repeat1, 7633),
     (sym_identifier, 298), (aux_sym_ERR_unexpected_this_in_path_token1, 304),
     (aux_sym_ERR_unexpected_super_in_path_token1, 306), (sym_line_comment, 3),
     (anon_sym_LBRACE, 308), (aux_sym_test_pragma_token1, 9), (aux_sym_once_pragma_token1, 11),
     (aux_sym_must_call_pragma_token1, 13), (aux_sym_export_pragma_token1, 15),
     (anon_sym_SEMI, 310), (anon_sym_PERCENT, 312), (aux_sym_input_decls_token1, 2094),
     (aux_sym_output_decls_token1, 2096), (aux_sym_in_out_decls_token1, 318),
     (aux_sym_var_decls_token1, 2098), (aux_sym_temp_var_decls_token1, 322),
     (aux_sym_external_var_decls_token1, 324), (aux_sym_global_var_decls_token1, 326),
     (aux_sym_method_decl_token1, 330), (aux_sym_method_decl_token3, 2466),
     (aux_sym_prog_access_decls_token1, 332), (aux_sym_config_init_token1, 336),
     (aux_sym__stmt_token1, 340), (aux_sym__stmt_token2, 340), (aux_sym__stmt_token3, 340),
     (aux_sym_if_stmt_token1, 342), (aux_sym_case_stmt_token1, 344), (aux_sym_for_stmt_token1, 346),
     (aux_sym_while_stmt_token1, 348), (aux_sym_repeat_stmt_token1, 350),
     (aux_sym_raise_stmt_token1, 352), (aux_sym_try_stmt_token1, 354),
     (aux_sym_try_stmt_token2, 356), (aux_sym_catch_clause_token1, 356),
     (aux_sym_finally_clause_token1, 356), (sym_ld_rung, 2102), (sym_fbd_network, 2104),
     (sym_c_style_comment, 3), (sym_pascal_style_comment, 3), (sym_pragma, 3)]"

lemma ts_parse_row_1003_scan: "row_scan tokens_63_2 0 ts_parse_row_1003 = Some (Suc (Suc (Suc (Suc 0))))"
  unfolding ts_parse_row_1003_def by simp

text \<open>Lines 167662 to 167765.\<close>

definition ts_parse_row_1004 :: parse_row where
  "ts_parse_row_1004 =
    [(sym_ERR_assign_func_call, 7530), (sym_ERR_unexpected_this_in_path, 2372),
     (sym_ERR_unexpected_super_in_path, 2372), (sym_ERR_var_access_not_allowed, 3196),
     (sym_ERR_var_config_not_allowed, 3196), (sym_ERR_var_external_not_allowed, 3196),
     (sym_ERR_var_global_not_allowed, 3196), (sym_ERR_method_decl_in_body, 3150),
     (sym_extern_pragma, 7490), (sym_wasm_pragma, 3150), (sym_warn_pragma, 7490),
     (sym_allow_pragma, 3140), (sym_test_pragma, 7490), (sym_once_pragma, 7490),
     (sym_must_call_pragma, 7490), (sym_export_pragma, 7490), (sym_pou_pragma, 7194),
     (sym_direct_variable, 7675), (sym_deref_expression, 2373), (sym_variable, 7599),
     (sym_var_access, 2373), (sym_input_decls, 3196), (sym_output_decls, 3196),
     (sym_in_out_decls, 3196), (sym_var_decls, 3196), (sym_temp_var_decls, 3196),
     (sym_external_var_decls, 3197), (sym_global_var_decls, 2947), (sym_func_body, 10211),
     (sym_method_decl, 3159), (sym__method_decl_variables, 2368), (sym_prog_access_decls, 3043),
     (sym_config_init, 3047), (sym_variable_access, 7530), (sym_func_call, 2961),
     (sym_stmt_list, 8165), (sym__stmt, 2024), (sym_assign, 3150), (sym_if_stmt, 3150),
     (sym_case_stmt, 3150), (sym_for_stmt, 3150), (sym_while_stmt, 3150), (sym_repeat_stmt, 3150),
     (sym_raise_stmt, 3150), (sym_try_stmt, 3150), (sym_ERR_clause_outside_try, 3150),
     (sym_begin_path_expression, 2943), (sym_invocation, 2934), (sym_any_invocation, 2935),
     (sym_this_invocation, 2641), (sym_super_invocation, 2641), (sym_super_body_invocation, 2935),
     (sym_path_expression, 2627), (sym_field_expression, 2373), (sym_index_expression, 2373),
     (sym_ladder_diagram, 8165), (sym_fb_diagram, 8165), (aux_sym_func_decl_repeat1, 7194),
     (aux_sym_method_decl_repeat1, 2368), (aux_sym_stmt_list_repeat1, 2024),
     (aux_sym_ladder_diagram_repeat1, 7628), (aux_sym_fb_diagram_repeat1, 7633),
     (sym_identifier, 298), (aux_sym_ERR_unexpected_this_in_path_token1, 304),
     (aux_sym_ERR_unexpected_super_in_path_token1, 306), (sym_line_comment, 3),
     (anon_sym_LBRACE, 308), (aux_sym_test_pragma_token1, 9), (aux_sym_once_pragma_token1, 11),
     (aux_sym_must_call_pragma_token1, 13), (aux_sym_export_pragma_token1, 15),
     (anon_sym_SEMI, 310), (anon_sym_PERCENT, 312), (aux_sym_input_decls_token1, 2094),
     (aux_sym_output_decls_token1, 2096), (aux_sym_in_out_decls_token1, 318),
     (aux_sym_var_decls_token1, 2098), (aux_sym_temp_var_decls_token1, 322),
     (aux_sym_external_var_decls_token1, 324), (aux_sym_global_var_decls_token1, 326),
     (aux_sym_method_decl_token1, 330), (aux_sym_method_decl_token3, 2468),
     (aux_sym_prog_access_decls_token1, 332), (aux_sym_config_init_token1, 336),
     (aux_sym__stmt_token1, 340), (aux_sym__stmt_token2, 340), (aux_sym__stmt_token3, 340),
     (aux_sym_if_stmt_token1, 342), (aux_sym_case_stmt_token1, 344), (aux_sym_for_stmt_token1, 346),
     (aux_sym_while_stmt_token1, 348), (aux_sym_repeat_stmt_token1, 350),
     (aux_sym_raise_stmt_token1, 352), (aux_sym_try_stmt_token1, 354),
     (aux_sym_try_stmt_token2, 356), (aux_sym_catch_clause_token1, 356),
     (aux_sym_finally_clause_token1, 356), (sym_ld_rung, 2102), (sym_fbd_network, 2104),
     (sym_c_style_comment, 3), (sym_pascal_style_comment, 3), (sym_pragma, 3)]"

lemma ts_parse_row_1004_scan: "row_scan tokens_63_2 0 ts_parse_row_1004 = Some (Suc (Suc (Suc (Suc 0))))"
  unfolding ts_parse_row_1004_def by simp

text \<open>Lines 167766 to 167869.\<close>

definition ts_parse_row_1005 :: parse_row where
  "ts_parse_row_1005 =
    [(sym_ERR_assign_func_call, 7530), (sym_ERR_unexpected_this_in_path, 2372),
     (sym_ERR_unexpected_super_in_path, 2372), (sym_ERR_var_access_not_allowed, 3196),
     (sym_ERR_var_config_not_allowed, 3196), (sym_ERR_var_external_not_allowed, 3196),
     (sym_ERR_var_global_not_allowed, 3196), (sym_ERR_method_decl_in_body, 3150),
     (sym_extern_pragma, 7490), (sym_wasm_pragma, 3150), (sym_warn_pragma, 7490),
     (sym_allow_pragma, 3140), (sym_test_pragma, 7490), (sym_once_pragma, 7490),
     (sym_must_call_pragma, 7490), (sym_export_pragma, 7490), (sym_pou_pragma, 7194),
     (sym_direct_variable, 7675), (sym_deref_expression, 2373), (sym_variable, 7599),
     (sym_var_access, 2373), (sym_input_decls, 3196), (sym_output_decls, 3196),
     (sym_in_out_decls, 3196), (sym_var_decls, 3196), (sym_temp_var_decls, 3196),
     (sym_external_var_decls, 3197), (sym_global_var_decls, 2947), (sym_func_body, 10213),
     (sym_method_decl, 3159), (sym__method_decl_variables, 2368), (sym_prog_access_decls, 3043),
     (sym_config_init, 3047), (sym_variable_access, 7530), (sym_func_call, 2961),
     (sym_stmt_list, 8165), (sym__stmt, 2024), (sym_assign, 3150), (sym_if_stmt, 3150),
     (sym_case_stmt, 3150), (sym_for_stmt, 3150), (sym_while_stmt, 3150), (sym_repeat_stmt, 3150),
     (sym_raise_stmt, 3150), (sym_try_stmt, 3150), (sym_ERR_clause_outside_try, 3150),
     (sym_begin_path_expression, 2943), (sym_invocation, 2934), (sym_any_invocation, 2935),
     (sym_this_invocation, 2641), (sym_super_invocation, 2641), (sym_super_body_invocation, 2935),
     (sym_path_expression, 2627), (sym_field_expression, 2373), (sym_index_expression, 2373),
     (sym_ladder_diagram, 8165), (sym_fb_diagram, 8165), (aux_sym_func_decl_repeat1, 7194),
     (aux_sym_method_decl_repeat1, 2368), (aux_sym_stmt_list_repeat1, 2024),
     (aux_sym_ladder_diagram_repeat1, 7628), (aux_sym_fb_diagram_repeat1, 7633),
     (sym_identifier, 298), (aux_sym_ERR_unexpected_this_in_path_token1, 304),
     (aux_sym_ERR_unexpected_super_in_path_token1, 306), (sym_line_comment, 3),
     (anon_sym_LBRACE, 308), (aux_sym_test_pragma_token1, 9), (aux_sym_once_pragma_token1, 11),
     (aux_sym_must_call_pragma_token1, 13), (aux_sym_export_pragma_token1, 15),
     (anon_sym_SEMI, 310), (anon_sym_PERCENT, 312), (aux_sym_input_decls_token1, 2094),
     (aux_sym_output_decls_token1, 2096), (aux_sym_in_out_decls_token1, 318),
     (aux_sym_var_decls_token1, 2098), (aux_sym_temp_var_decls_token1, 322),
     (aux_sym_external_var_decls_token1, 324), (aux_sym_global_var_decls_token1, 326),
     (aux_sym_method_decl_token1, 330), (aux_sym_method_decl_token3, 2470),
     (aux_sym_prog_access_decls_token1, 332), (aux_sym_config_init_token1, 336),
     (aux_sym__stmt_token1, 340), (aux_sym__stmt_token2, 340), (aux_sym__stmt_token3, 340),
     (aux_sym_if_stmt_token1, 342), (aux_sym_case_stmt_token1, 344), (aux_sym_for_stmt_token1, 346),
     (aux_sym_while_stmt_token1, 348), (aux_sym_repeat_stmt_token1, 350),
     (aux_sym_raise_stmt_token1, 352), (aux_sym_try_stmt_token1, 354),
     (aux_sym_try_stmt_token2, 356), (aux_sym_catch_clause_token1, 356),
     (aux_sym_finally_clause_token1, 356), (sym_ld_rung, 2102), (sym_fbd_network, 2104),
     (sym_c_style_comment, 3), (sym_pascal_style_comment, 3), (sym_pragma, 3)]"

lemma ts_parse_row_1005_scan: "row_scan tokens_63_2 0 ts_parse_row_1005 = Some (Suc (Suc (Suc (Suc 0))))"
  unfolding ts_parse_row_1005_def by simp

text \<open>Lines 167870 to 167973.\<close>

definition ts_parse_row_1006 :: parse_row where
  "ts_parse_row_1006 =
    [(sym_ERR_assign_func_call, 7530), (sym_ERR_unexpected_this_in_path, 2372),
     (sym_ERR_unexpected_super_in_path, 2372), (sym_ERR_var_access_not_allowed, 3196),
     (sym_ERR_var_config_not_allowed, 3196), (sym_ERR_var_external_not_allowed, 3196),
     (sym_ERR_var_global_not_allowed, 3196), (sym_ERR_method_decl_in_body, 3150),
     (sym_extern_pragma, 7490), (sym_wasm_pragma, 3150), (sym_warn_pragma, 7490),
     (sym_allow_pragma, 3140), (sym_test_pragma, 7490), (sym_once_pragma, 7490),
     (sym_must_call_pragma, 7490), (sym_export_pragma, 7490), (sym_pou_pragma, 7194),
     (sym_direct_variable, 7675), (sym_deref_expression, 2373), (sym_variable, 7599),
     (sym_var_access, 2373), (sym_input_decls, 3196), (sym_output_decls, 3196),
     (sym_in_out_decls, 3196), (sym_var_decls, 3196), (sym_temp_var_decls, 3196),
     (sym_external_var_decls, 3197), (sym_global_var_decls, 2947), (sym_func_body, 10214),
     (sym_method_decl, 3159), (sym__method_decl_variables, 1019), (sym_prog_access_decls, 3043),
     (sym_config_init, 3047), (sym_variable_access, 7530), (sym_func_call, 2961),
     (sym_stmt_list, 8165), (sym__stmt, 2024), (sym_assign, 3150), (sym_if_stmt, 3150),
     (sym_case_stmt, 3150), (sym_for_stmt, 3150), (sym_while_stmt, 3150), (sym_repeat_stmt, 3150),
     (sym_raise_stmt, 3150), (sym_try_stmt, 3150), (sym_ERR_clause_outside_try, 3150),
     (sym_begin_path_expression, 2943), (sym_invocation, 2934), (sym_any_invocation, 2935),
     (sym_this_invocation, 2641), (sym_super_invocation, 2641), (sym_super_body_invocation, 2935),
     (sym_path_expression, 2627), (sym_field_expression, 2373), (sym_index_expression, 2373),
     (sym_ladder_diagram, 8165), (sym_fb_diagram, 8165), (aux_sym_func_decl_repeat1, 7194),
     (aux_sym_method_decl_repeat1, 1019), (aux_sym_stmt_list_repeat1, 2024),
     (aux_sym_ladder_diagram_repeat1, 7628), (aux_sym_fb_diagram_repeat1, 7633),
     (sym_identifier, 298), (aux_sym_ERR_unexpected_this_in_path_token1, 304),
     (aux_sym_ERR_unexpected_super_in_path_token1, 306), (sym_line_comment, 3),
     (anon_sym_LBRACE, 308), (aux_sym_test_pragma_token1, 9), (aux_sym_once_pragma_token1, 11),
     (aux_sym_must_call_pragma_token1, 13), (aux_sym_export_pragma_token1, 15),
     (anon_sym_SEMI, 310), (anon_sym_PERCENT, 312), (aux_sym_input_decls_token1, 2094),
     (aux_sym_output_decls_token1, 2096), (aux_sym_in_out_decls_token1, 318),
     (aux_sym_var_decls_token1, 2098), (aux_sym_temp_var_decls_token1, 322),
     (aux_sym_external_var_decls_token1, 324), (aux_sym_global_var_decls_token1, 326),
     (aux_sym_method_decl_token1, 330), (aux_sym_method_decl_token3, 2472),
     (aux_sym_prog_access_decls_token1, 332), (aux_sym_config_init_token1, 336),
     (aux_sym__stmt_token1, 340), (aux_sym__stmt_token2, 340), (aux_sym__stmt_token3, 340),
     (aux_sym_if_stmt_token1, 342), (aux_sym_case_stmt_token1, 344), (aux_sym_for_stmt_token1, 346),
     (aux_sym_while_stmt_token1, 348), (aux_sym_repeat_stmt_token1, 350),
     (aux_sym_raise_stmt_token1, 352), (aux_sym_try_stmt_token1, 354),
     (aux_sym_try_stmt_token2, 356), (aux_sym_catch_clause_token1, 356),
     (aux_sym_finally_clause_token1, 356), (sym_ld_rung, 2102), (sym_fbd_network, 2104),
     (sym_c_style_comment, 3), (sym_pascal_style_comment, 3), (sym_pragma, 3)]"

lemma ts_parse_row_1006_scan: "row_scan tokens_63_2 0 ts_parse_row_1006 = Some (Suc (Suc (Suc (Suc 0))))"
  unfolding ts_parse_row_1006_def by simp

text \<open>Lines 167974 to 168077.\<close>

definition ts_parse_row_1007 :: parse_row where
  "ts_parse_row_1007 =
    [(sym_ERR_assign_func_call, 7530), (sym_ERR_unexpected_this_in_path, 2372),
     (sym_ERR_unexpected_super_in_path, 2372), (sym_ERR_var_access_not_allowed, 3196),
     (sym_ERR_var_config_not_allowed, 3196), (sym_ERR_var_external_not_allowed, 3196),
     (sym_ERR_var_global_not_allowed, 3196), (sym_ERR_method_decl_in_body, 3150),
     (sym_extern_pragma, 7490), (sym_wasm_pragma, 3150), (sym_warn_pragma, 7490),
     (sym_allow_pragma, 3140), (sym_test_pragma, 7490), (sym_once_pragma, 7490),
     (sym_must_call_pragma, 7490), (sym_export_pragma, 7490), (sym_pou_pragma, 7194),
     (sym_direct_variable, 7675), (sym_deref_expression, 2373), (sym_variable, 7599),
     (sym_var_access, 2373), (sym_input_decls, 3196), (sym_output_decls, 3196),
     (sym_in_out_decls, 3196), (sym_var_decls, 3196), (sym_temp_var_decls, 3196),
     (sym_external_var_decls, 3197), (sym_global_var_decls, 2947), (sym_func_body, 10216),
     (sym_method_decl, 3159), (sym__method_decl_variables, 1020), (sym_prog_access_decls, 3043),
     (sym_config_init, 3047), (sym_variable_access, 7530), (sym_func_call, 2961),
     (sym_stmt_list, 8165), (sym__stmt, 2024), (sym_assign, 3150), (sym_if_stmt, 3150),
     (sym_case_stmt, 3150), (sym_for_stmt, 3150), (sym_while_stmt, 3150), (sym_repeat_stmt, 3150),
     (sym_raise_stmt, 3150), (sym_try_stmt, 3150), (sym_ERR_clause_outside_try, 3150),
     (sym_begin_path_expression, 2943), (sym_invocation, 2934), (sym_any_invocation, 2935),
     (sym_this_invocation, 2641), (sym_super_invocation, 2641), (sym_super_body_invocation, 2935),
     (sym_path_expression, 2627), (sym_field_expression, 2373), (sym_index_expression, 2373),
     (sym_ladder_diagram, 8165), (sym_fb_diagram, 8165), (aux_sym_func_decl_repeat1, 7194),
     (aux_sym_method_decl_repeat1, 1020), (aux_sym_stmt_list_repeat1, 2024),
     (aux_sym_ladder_diagram_repeat1, 7628), (aux_sym_fb_diagram_repeat1, 7633),
     (sym_identifier, 298), (aux_sym_ERR_unexpected_this_in_path_token1, 304),
     (aux_sym_ERR_unexpected_super_in_path_token1, 306), (sym_line_comment, 3),
     (anon_sym_LBRACE, 308), (aux_sym_test_pragma_token1, 9), (aux_sym_once_pragma_token1, 11),
     (aux_sym_must_call_pragma_token1, 13), (aux_sym_export_pragma_token1, 15),
     (anon_sym_SEMI, 310), (anon_sym_PERCENT, 312), (aux_sym_input_decls_token1, 2094),
     (aux_sym_output_decls_token1, 2096), (aux_sym_in_out_decls_token1, 318),
     (aux_sym_var_decls_token1, 2098), (aux_sym_temp_var_decls_token1, 322),
     (aux_sym_external_var_decls_token1, 324), (aux_sym_global_var_decls_token1, 326),
     (aux_sym_method_decl_token1, 330), (aux_sym_method_decl_token3, 2474),
     (aux_sym_prog_access_decls_token1, 332), (aux_sym_config_init_token1, 336),
     (aux_sym__stmt_token1, 340), (aux_sym__stmt_token2, 340), (aux_sym__stmt_token3, 340),
     (aux_sym_if_stmt_token1, 342), (aux_sym_case_stmt_token1, 344), (aux_sym_for_stmt_token1, 346),
     (aux_sym_while_stmt_token1, 348), (aux_sym_repeat_stmt_token1, 350),
     (aux_sym_raise_stmt_token1, 352), (aux_sym_try_stmt_token1, 354),
     (aux_sym_try_stmt_token2, 356), (aux_sym_catch_clause_token1, 356),
     (aux_sym_finally_clause_token1, 356), (sym_ld_rung, 2102), (sym_fbd_network, 2104),
     (sym_c_style_comment, 3), (sym_pascal_style_comment, 3), (sym_pragma, 3)]"

lemma ts_parse_row_1007_scan: "row_scan tokens_63_2 0 ts_parse_row_1007 = Some (Suc (Suc (Suc (Suc 0))))"
  unfolding ts_parse_row_1007_def by simp

text \<open>Lines 168078 to 168181.\<close>

definition ts_parse_row_1008 :: parse_row where
  "ts_parse_row_1008 =
    [(sym_ERR_assign_func_call, 7530), (sym_ERR_unexpected_this_in_path, 2372),
     (sym_ERR_unexpected_super_in_path, 2372), (sym_ERR_var_access_not_allowed, 3196),
     (sym_ERR_var_config_not_allowed, 3196), (sym_ERR_var_external_not_allowed, 3196),
     (sym_ERR_var_global_not_allowed, 3196), (sym_ERR_method_decl_in_body, 3150),
     (sym_extern_pragma, 7490), (sym_wasm_pragma, 3150), (sym_warn_pragma, 7490),
     (sym_allow_pragma, 3140), (sym_test_pragma, 7490), (sym_once_pragma, 7490),
     (sym_must_call_pragma, 7490), (sym_export_pragma, 7490), (sym_pou_pragma, 7194),
     (sym_direct_variable, 7675), (sym_deref_expression, 2373), (sym_variable, 7599),
     (sym_var_access, 2373), (sym_input_decls, 3196), (sym_output_decls, 3196),
     (sym_in_out_decls, 3196), (sym_var_decls, 3196), (sym_temp_var_decls, 3196),
     (sym_external_var_decls, 3197), (sym_global_var_decls, 2947), (sym_func_body, 10218),
     (sym_method_decl, 3159), (sym__method_decl_variables, 2368), (sym_prog_access_decls, 3043),
     (sym_config_init, 3047), (sym_variable_access, 7530), (sym_func_call, 2961),
     (sym_stmt_list, 8165), (sym__stmt, 2024), (sym_assign, 3150), (sym_if_stmt, 3150),
     (sym_case_stmt, 3150), (sym_for_stmt, 3150), (sym_while_stmt, 3150), (sym_repeat_stmt, 3150),
     (sym_raise_stmt, 3150), (sym_try_stmt, 3150), (sym_ERR_clause_outside_try, 3150),
     (sym_begin_path_expression, 2943), (sym_invocation, 2934), (sym_any_invocation, 2935),
     (sym_this_invocation, 2641), (sym_super_invocation, 2641), (sym_super_body_invocation, 2935),
     (sym_path_expression, 2627), (sym_field_expression, 2373), (sym_index_expression, 2373),
     (sym_ladder_diagram, 8165), (sym_fb_diagram, 8165), (aux_sym_func_decl_repeat1, 7194),
     (aux_sym_method_decl_repeat1, 2368), (aux_sym_stmt_list_repeat1, 2024),
     (aux_sym_ladder_diagram_repeat1, 7628), (aux_sym_fb_diagram_repeat1, 7633),
     (sym_identifier, 298), (aux_sym_ERR_unexpected_this_in_path_token1, 304),
     (aux_sym_ERR_unexpected_super_in_path_token1, 306), (sym_line_comment, 3),
     (anon_sym_LBRACE, 308), (aux_sym_test_pragma_token1, 9), (aux_sym_once_pragma_token1, 11),
     (aux_sym_must_call_pragma_token1, 13), (aux_sym_export_pragma_token1, 15),
     (anon_sym_SEMI, 310), (anon_sym_PERCENT, 312), (aux_sym_input_decls_token1, 2094),
     (aux_sym_output_decls_token1, 2096), (aux_sym_in_out_decls_token1, 318),
     (aux_sym_var_decls_token1, 2098), (aux_sym_temp_var_decls_token1, 322),
     (aux_sym_external_var_decls_token1, 324), (aux_sym_global_var_decls_token1, 326),
     (aux_sym_method_decl_token1, 330), (aux_sym_method_decl_token3, 2476),
     (aux_sym_prog_access_decls_token1, 332), (aux_sym_config_init_token1, 336),
     (aux_sym__stmt_token1, 340), (aux_sym__stmt_token2, 340), (aux_sym__stmt_token3, 340),
     (aux_sym_if_stmt_token1, 342), (aux_sym_case_stmt_token1, 344), (aux_sym_for_stmt_token1, 346),
     (aux_sym_while_stmt_token1, 348), (aux_sym_repeat_stmt_token1, 350),
     (aux_sym_raise_stmt_token1, 352), (aux_sym_try_stmt_token1, 354),
     (aux_sym_try_stmt_token2, 356), (aux_sym_catch_clause_token1, 356),
     (aux_sym_finally_clause_token1, 356), (sym_ld_rung, 2102), (sym_fbd_network, 2104),
     (sym_c_style_comment, 3), (sym_pascal_style_comment, 3), (sym_pragma, 3)]"

lemma ts_parse_row_1008_scan: "row_scan tokens_63_2 0 ts_parse_row_1008 = Some (Suc (Suc (Suc (Suc 0))))"
  unfolding ts_parse_row_1008_def by simp

text \<open>Lines 168182 to 168285.\<close>

definition ts_parse_row_1009 :: parse_row where
  "ts_parse_row_1009 =
    [(sym_ERR_assign_func_call, 7530), (sym_ERR_unexpected_this_in_path, 2372),
     (sym_ERR_unexpected_super_in_path, 2372), (sym_ERR_var_access_not_allowed, 3196),
     (sym_ERR_var_config_not_allowed, 3196), (sym_ERR_var_external_not_allowed, 3196),
     (sym_ERR_var_global_not_allowed, 3196), (sym_ERR_method_decl_in_body, 3150),
     (sym_extern_pragma, 7490), (sym_wasm_pragma, 3150), (sym_warn_pragma, 7490),
     (sym_allow_pragma, 3140), (sym_test_pragma, 7490), (sym_once_pragma, 7490),
     (sym_must_call_pragma, 7490), (sym_export_pragma, 7490), (sym_pou_pragma, 7194),
     (sym_direct_variable, 7675), (sym_deref_expression, 2373), (sym_variable, 7599),
     (sym_var_access, 2373), (sym_input_decls, 3196), (sym_output_decls, 3196),
     (sym_in_out_decls, 3196), (sym_var_decls, 3196), (sym_temp_var_decls, 3196),
     (sym_external_var_decls, 3197), (sym_global_var_decls, 2947), (sym_func_body, 10221),
     (sym_method_decl, 3159), (sym__method_decl_variables, 2368), (sym_prog_access_decls, 3043),
     (sym_config_init, 3047), (sym_variable_access, 7530), (sym_func_call, 2961),
     (sym_stmt_list, 8165), (sym__stmt, 2024), (sym_assign, 3150), (sym_if_stmt, 3150),
     (sym_case_stmt, 3150), (sym_for_stmt, 3150), (sym_while_stmt, 3150), (sym_repeat_stmt, 3150),
     (sym_raise_stmt, 3150), (sym_try_stmt, 3150), (sym_ERR_clause_outside_try, 3150),
     (sym_begin_path_expression, 2943), (sym_invocation, 2934), (sym_any_invocation, 2935),
     (sym_this_invocation, 2641), (sym_super_invocation, 2641), (sym_super_body_invocation, 2935),
     (sym_path_expression, 2627), (sym_field_expression, 2373), (sym_index_expression, 2373),
     (sym_ladder_diagram, 8165), (sym_fb_diagram, 8165), (aux_sym_func_decl_repeat1, 7194),
     (aux_sym_method_decl_repeat1, 2368), (aux_sym_stmt_list_repeat1, 2024),
     (aux_sym_ladder_diagram_repeat1, 7628), (aux_sym_fb_diagram_repeat1, 7633),
     (sym_identifier, 298), (aux_sym_ERR_unexpected_this_in_path_token1, 304),
     (aux_sym_ERR_unexpected_super_in_path_token1, 306), (sym_line_comment, 3),
     (anon_sym_LBRACE, 308), (aux_sym_test_pragma_token1, 9), (aux_sym_once_pragma_token1, 11),
     (aux_sym_must_call_pragma_token1, 13), (aux_sym_export_pragma_token1, 15),
     (anon_sym_SEMI, 310), (anon_sym_PERCENT, 312), (aux_sym_input_decls_token1, 2094),
     (aux_sym_output_decls_token1, 2096), (aux_sym_in_out_decls_token1, 318),
     (aux_sym_var_decls_token1, 2098), (aux_sym_temp_var_decls_token1, 322),
     (aux_sym_external_var_decls_token1, 324), (aux_sym_global_var_decls_token1, 326),
     (aux_sym_method_decl_token1, 330), (aux_sym_method_decl_token3, 2478),
     (aux_sym_prog_access_decls_token1, 332), (aux_sym_config_init_token1, 336),
     (aux_sym__stmt_token1, 340), (aux_sym__stmt_token2, 340), (aux_sym__stmt_token3, 340),
     (aux_sym_if_stmt_token1, 342), (aux_sym_case_stmt_token1, 344), (aux_sym_for_stmt_token1, 346),
     (aux_sym_while_stmt_token1, 348), (aux_sym_repeat_stmt_token1, 350),
     (aux_sym_raise_stmt_token1, 352), (aux_sym_try_stmt_token1, 354),
     (aux_sym_try_stmt_token2, 356), (aux_sym_catch_clause_token1, 356),
     (aux_sym_finally_clause_token1, 356), (sym_ld_rung, 2102), (sym_fbd_network, 2104),
     (sym_c_style_comment, 3), (sym_pascal_style_comment, 3), (sym_pragma, 3)]"

lemma ts_parse_row_1009_scan: "row_scan tokens_63_2 0 ts_parse_row_1009 = Some (Suc (Suc (Suc (Suc 0))))"
  unfolding ts_parse_row_1009_def by simp

text \<open>Lines 168286 to 168389.\<close>

definition ts_parse_row_1010 :: parse_row where
  "ts_parse_row_1010 =
    [(sym_ERR_assign_func_call, 7530), (sym_ERR_unexpected_this_in_path, 2372),
     (sym_ERR_unexpected_super_in_path, 2372), (sym_ERR_var_access_not_allowed, 3196),
     (sym_ERR_var_config_not_allowed, 3196), (sym_ERR_var_external_not_allowed, 3196),
     (sym_ERR_var_global_not_allowed, 3196), (sym_ERR_method_decl_in_body, 3150),
     (sym_extern_pragma, 7490), (sym_wasm_pragma, 3150), (sym_warn_pragma, 7490),
     (sym_allow_pragma, 3140), (sym_test_pragma, 7490), (sym_once_pragma, 7490),
     (sym_must_call_pragma, 7490), (sym_export_pragma, 7490), (sym_pou_pragma, 7194),
     (sym_direct_variable, 7675), (sym_deref_expression, 2373), (sym_variable, 7599),
     (sym_var_access, 2373), (sym_input_decls, 3196), (sym_output_decls, 3196),
     (sym_in_out_decls, 3196), (sym_var_decls, 3196), (sym_temp_var_decls, 3196),
     (sym_external_var_decls, 3197), (sym_global_var_decls, 2947), (sym_func_body, 10222),
     (sym_method_decl, 3159), (sym__method_decl_variables, 1022), (sym_prog_access_decls, 3043),
     (sym_config_init, 3047), (sym_variable_access, 7530), (sym_func_call, 2961),
     (sym_stmt_list, 8165), (sym__stmt, 2024), (sym_assign, 3150), (sym_if_stmt, 3150),
     (sym_case_stmt, 3150), (sym_for_stmt, 3150), (sym_while_stmt, 3150), (sym_repeat_stmt, 3150),
     (sym_raise_stmt, 3150), (sym_try_stmt, 3150), (sym_ERR_clause_outside_try, 3150),
     (sym_begin_path_expression, 2943), (sym_invocation, 2934), (sym_any_invocation, 2935),
     (sym_this_invocation, 2641), (sym_super_invocation, 2641), (sym_super_body_invocation, 2935),
     (sym_path_expression, 2627), (sym_field_expression, 2373), (sym_index_expression, 2373),
     (sym_ladder_diagram, 8165), (sym_fb_diagram, 8165), (aux_sym_func_decl_repeat1, 7194),
     (aux_sym_method_decl_repeat1, 1022), (aux_sym_stmt_list_repeat1, 2024),
     (aux_sym_ladder_diagram_repeat1, 7628), (aux_sym_fb_diagram_repeat1, 7633),
     (sym_identifier, 298), (aux_sym_ERR_unexpected_this_in_path_token1, 304),
     (aux_sym_ERR_unexpected_super_in_path_token1, 306), (sym_line_comment, 3),
     (anon_sym_LBRACE, 308), (aux_sym_test_pragma_token1, 9), (aux_sym_once_pragma_token1, 11),
     (aux_sym_must_call_pragma_token1, 13), (aux_sym_export_pragma_token1, 15),
     (anon_sym_SEMI, 310), (anon_sym_PERCENT, 312), (aux_sym_input_decls_token1, 2094),
     (aux_sym_output_decls_token1, 2096), (aux_sym_in_out_decls_token1, 318),
     (aux_sym_var_decls_token1, 2098), (aux_sym_temp_var_decls_token1, 322),
     (aux_sym_external_var_decls_token1, 324), (aux_sym_global_var_decls_token1, 326),
     (aux_sym_method_decl_token1, 330), (aux_sym_method_decl_token3, 2480),
     (aux_sym_prog_access_decls_token1, 332), (aux_sym_config_init_token1, 336),
     (aux_sym__stmt_token1, 340), (aux_sym__stmt_token2, 340), (aux_sym__stmt_token3, 340),
     (aux_sym_if_stmt_token1, 342), (aux_sym_case_stmt_token1, 344), (aux_sym_for_stmt_token1, 346),
     (aux_sym_while_stmt_token1, 348), (aux_sym_repeat_stmt_token1, 350),
     (aux_sym_raise_stmt_token1, 352), (aux_sym_try_stmt_token1, 354),
     (aux_sym_try_stmt_token2, 356), (aux_sym_catch_clause_token1, 356),
     (aux_sym_finally_clause_token1, 356), (sym_ld_rung, 2102), (sym_fbd_network, 2104),
     (sym_c_style_comment, 3), (sym_pascal_style_comment, 3), (sym_pragma, 3)]"

lemma ts_parse_row_1010_scan: "row_scan tokens_63_2 0 ts_parse_row_1010 = Some (Suc (Suc (Suc (Suc 0))))"
  unfolding ts_parse_row_1010_def by simp

text \<open>Lines 168390 to 168493.\<close>

definition ts_parse_row_1011 :: parse_row where
  "ts_parse_row_1011 =
    [(sym_ERR_assign_func_call, 7530), (sym_ERR_unexpected_this_in_path, 2372),
     (sym_ERR_unexpected_super_in_path, 2372), (sym_ERR_var_access_not_allowed, 3196),
     (sym_ERR_var_config_not_allowed, 3196), (sym_ERR_var_external_not_allowed, 3196),
     (sym_ERR_var_global_not_allowed, 3196), (sym_ERR_method_decl_in_body, 3150),
     (sym_extern_pragma, 7490), (sym_wasm_pragma, 3150), (sym_warn_pragma, 7490),
     (sym_allow_pragma, 3140), (sym_test_pragma, 7490), (sym_once_pragma, 7490),
     (sym_must_call_pragma, 7490), (sym_export_pragma, 7490), (sym_pou_pragma, 7194),
     (sym_direct_variable, 7675), (sym_deref_expression, 2373), (sym_variable, 7599),
     (sym_var_access, 2373), (sym_input_decls, 3196), (sym_output_decls, 3196),
     (sym_in_out_decls, 3196), (sym_var_decls, 3196), (sym_temp_var_decls, 3196),
     (sym_external_var_decls, 3197), (sym_global_var_decls, 2947), (sym_func_body, 10224),
     (sym_method_decl, 3159), (sym__method_decl_variables, 1023), (sym_prog_access_decls, 3043),
     (sym_config_init, 3047), (sym_variable_access, 7530), (sym_func_call, 2961),
     (sym_stmt_list, 8165), (sym__stmt, 2024), (sym_assign, 3150), (sym_if_stmt, 3150),
     (sym_case_stmt, 3150), (sym_for_stmt, 3150), (sym_while_stmt, 3150), (sym_repeat_stmt, 3150),
     (sym_raise_stmt, 3150), (sym_try_stmt, 3150), (sym_ERR_clause_outside_try, 3150),
     (sym_begin_path_expression, 2943), (sym_invocation, 2934), (sym_any_invocation, 2935),
     (sym_this_invocation, 2641), (sym_super_invocation, 2641), (sym_super_body_invocation, 2935),
     (sym_path_expression, 2627), (sym_field_expression, 2373), (sym_index_expression, 2373),
     (sym_ladder_diagram, 8165), (sym_fb_diagram, 8165), (aux_sym_func_decl_repeat1, 7194),
     (aux_sym_method_decl_repeat1, 1023), (aux_sym_stmt_list_repeat1, 2024),
     (aux_sym_ladder_diagram_repeat1, 7628), (aux_sym_fb_diagram_repeat1, 7633),
     (sym_identifier, 298), (aux_sym_ERR_unexpected_this_in_path_token1, 304),
     (aux_sym_ERR_unexpected_super_in_path_token1, 306), (sym_line_comment, 3),
     (anon_sym_LBRACE, 308), (aux_sym_test_pragma_token1, 9), (aux_sym_once_pragma_token1, 11),
     (aux_sym_must_call_pragma_token1, 13), (aux_sym_export_pragma_token1, 15),
     (anon_sym_SEMI, 310), (anon_sym_PERCENT, 312), (aux_sym_input_decls_token1, 2094),
     (aux_sym_output_decls_token1, 2096), (aux_sym_in_out_decls_token1, 318),
     (aux_sym_var_decls_token1, 2098), (aux_sym_temp_var_decls_token1, 322),
     (aux_sym_external_var_decls_token1, 324), (aux_sym_global_var_decls_token1, 326),
     (aux_sym_method_decl_token1, 330), (aux_sym_method_decl_token3, 2482),
     (aux_sym_prog_access_decls_token1, 332), (aux_sym_config_init_token1, 336),
     (aux_sym__stmt_token1, 340), (aux_sym__stmt_token2, 340), (aux_sym__stmt_token3, 340),
     (aux_sym_if_stmt_token1, 342), (aux_sym_case_stmt_token1, 344), (aux_sym_for_stmt_token1, 346),
     (aux_sym_while_stmt_token1, 348), (aux_sym_repeat_stmt_token1, 350),
     (aux_sym_raise_stmt_token1, 352), (aux_sym_try_stmt_token1, 354),
     (aux_sym_try_stmt_token2, 356), (aux_sym_catch_clause_token1, 356),
     (aux_sym_finally_clause_token1, 356), (sym_ld_rung, 2102), (sym_fbd_network, 2104),
     (sym_c_style_comment, 3), (sym_pascal_style_comment, 3), (sym_pragma, 3)]"

lemma ts_parse_row_1011_scan: "row_scan tokens_63_2 0 ts_parse_row_1011 = Some (Suc (Suc (Suc (Suc 0))))"
  unfolding ts_parse_row_1011_def by simp

text \<open>Lines 168494 to 168597.\<close>

definition ts_parse_row_1012 :: parse_row where
  "ts_parse_row_1012 =
    [(sym_ERR_assign_func_call, 7530), (sym_ERR_unexpected_this_in_path, 2372),
     (sym_ERR_unexpected_super_in_path, 2372), (sym_ERR_var_access_not_allowed, 3196),
     (sym_ERR_var_config_not_allowed, 3196), (sym_ERR_var_external_not_allowed, 3196),
     (sym_ERR_var_global_not_allowed, 3196), (sym_ERR_method_decl_in_body, 3150),
     (sym_extern_pragma, 7490), (sym_wasm_pragma, 3150), (sym_warn_pragma, 7490),
     (sym_allow_pragma, 3140), (sym_test_pragma, 7490), (sym_once_pragma, 7490),
     (sym_must_call_pragma, 7490), (sym_export_pragma, 7490), (sym_pou_pragma, 7194),
     (sym_direct_variable, 7675), (sym_deref_expression, 2373), (sym_variable, 7599),
     (sym_var_access, 2373), (sym_input_decls, 3196), (sym_output_decls, 3196),
     (sym_in_out_decls, 3196), (sym_var_decls, 3196), (sym_temp_var_decls, 3196),
     (sym_external_var_decls, 3197), (sym_global_var_decls, 2947), (sym_func_body, 10226),
     (sym_method_decl, 3159), (sym__method_decl_variables, 2368), (sym_prog_access_decls, 3043),
     (sym_config_init, 3047), (sym_variable_access, 7530), (sym_func_call, 2961),
     (sym_stmt_list, 8165), (sym__stmt, 2024), (sym_assign, 3150), (sym_if_stmt, 3150),
     (sym_case_stmt, 3150), (sym_for_stmt, 3150), (sym_while_stmt, 3150), (sym_repeat_stmt, 3150),
     (sym_raise_stmt, 3150), (sym_try_stmt, 3150), (sym_ERR_clause_outside_try, 3150),
     (sym_begin_path_expression, 2943), (sym_invocation, 2934), (sym_any_invocation, 2935),
     (sym_this_invocation, 2641), (sym_super_invocation, 2641), (sym_super_body_invocation, 2935),
     (sym_path_expression, 2627), (sym_field_expression, 2373), (sym_index_expression, 2373),
     (sym_ladder_diagram, 8165), (sym_fb_diagram, 8165), (aux_sym_func_decl_repeat1, 7194),
     (aux_sym_method_decl_repeat1, 2368), (aux_sym_stmt_list_repeat1, 2024),
     (aux_sym_ladder_diagram_repeat1, 7628), (aux_sym_fb_diagram_repeat1, 7633),
     (sym_identifier, 298), (aux_sym_ERR_unexpected_this_in_path_token1, 304),
     (aux_sym_ERR_unexpected_super_in_path_token1, 306), (sym_line_comment, 3),
     (anon_sym_LBRACE, 308), (aux_sym_test_pragma_token1, 9), (aux_sym_once_pragma_token1, 11),
     (aux_sym_must_call_pragma_token1, 13), (aux_sym_export_pragma_token1, 15),
     (anon_sym_SEMI, 310), (anon_sym_PERCENT, 312), (aux_sym_input_decls_token1, 2094),
     (aux_sym_output_decls_token1, 2096), (aux_sym_in_out_decls_token1, 318),
     (aux_sym_var_decls_token1, 2098), (aux_sym_temp_var_decls_token1, 322),
     (aux_sym_external_var_decls_token1, 324), (aux_sym_global_var_decls_token1, 326),
     (aux_sym_method_decl_token1, 330), (aux_sym_method_decl_token3, 2484),
     (aux_sym_prog_access_decls_token1, 332), (aux_sym_config_init_token1, 336),
     (aux_sym__stmt_token1, 340), (aux_sym__stmt_token2, 340), (aux_sym__stmt_token3, 340),
     (aux_sym_if_stmt_token1, 342), (aux_sym_case_stmt_token1, 344), (aux_sym_for_stmt_token1, 346),
     (aux_sym_while_stmt_token1, 348), (aux_sym_repeat_stmt_token1, 350),
     (aux_sym_raise_stmt_token1, 352), (aux_sym_try_stmt_token1, 354),
     (aux_sym_try_stmt_token2, 356), (aux_sym_catch_clause_token1, 356),
     (aux_sym_finally_clause_token1, 356), (sym_ld_rung, 2102), (sym_fbd_network, 2104),
     (sym_c_style_comment, 3), (sym_pascal_style_comment, 3), (sym_pragma, 3)]"

lemma ts_parse_row_1012_scan: "row_scan tokens_63_2 0 ts_parse_row_1012 = Some (Suc (Suc (Suc (Suc 0))))"
  unfolding ts_parse_row_1012_def by simp

text \<open>Lines 168598 to 168701.\<close>

definition ts_parse_row_1013 :: parse_row where
  "ts_parse_row_1013 =
    [(sym_ERR_assign_func_call, 7530), (sym_ERR_unexpected_this_in_path, 2372),
     (sym_ERR_unexpected_super_in_path, 2372), (sym_ERR_var_access_not_allowed, 3196),
     (sym_ERR_var_config_not_allowed, 3196), (sym_ERR_var_external_not_allowed, 3196),
     (sym_ERR_var_global_not_allowed, 3196), (sym_ERR_method_decl_in_body, 3150),
     (sym_extern_pragma, 7490), (sym_wasm_pragma, 3150), (sym_warn_pragma, 7490),
     (sym_allow_pragma, 3140), (sym_test_pragma, 7490), (sym_once_pragma, 7490),
     (sym_must_call_pragma, 7490), (sym_export_pragma, 7490), (sym_pou_pragma, 7194),
     (sym_direct_variable, 7675), (sym_deref_expression, 2373), (sym_variable, 7599),
     (sym_var_access, 2373), (sym_input_decls, 3196), (sym_output_decls, 3196),
     (sym_in_out_decls, 3196), (sym_var_decls, 3196), (sym_temp_var_decls, 3196),
     (sym_external_var_decls, 3197), (sym_global_var_decls, 2947), (sym_func_body, 9348),
     (sym_method_decl, 3159), (sym__method_decl_variables, 2368), (sym_prog_access_decls, 3043),
     (sym_config_init, 3047), (sym_variable_access, 7530), (sym_func_call, 2961),
     (sym_stmt_list, 8165), (sym__stmt, 2024), (sym_assign, 3150), (sym_if_stmt, 3150),
     (sym_case_stmt, 3150), (sym_for_stmt, 3150), (sym_while_stmt, 3150), (sym_repeat_stmt, 3150),
     (sym_raise_stmt, 3150), (sym_try_stmt, 3150), (sym_ERR_clause_outside_try, 3150),
     (sym_begin_path_expression, 2943), (sym_invocation, 2934), (sym_any_invocation, 2935),
     (sym_this_invocation, 2641), (sym_super_invocation, 2641), (sym_super_body_invocation, 2935),
     (sym_path_expression, 2627), (sym_field_expression, 2373), (sym_index_expression, 2373),
     (sym_ladder_diagram, 8165), (sym_fb_diagram, 8165), (aux_sym_func_decl_repeat1, 7194),
     (aux_sym_method_decl_repeat1, 2368), (aux_sym_stmt_list_repeat1, 2024),
     (aux_sym_ladder_diagram_repeat1, 7628), (aux_sym_fb_diagram_repeat1, 7633),
     (sym_identifier, 298), (aux_sym_ERR_unexpected_this_in_path_token1, 304),
     (aux_sym_ERR_unexpected_super_in_path_token1, 306), (sym_line_comment, 3),
     (anon_sym_LBRACE, 308), (aux_sym_test_pragma_token1, 9), (aux_sym_once_pragma_token1, 11),
     (aux_sym_must_call_pragma_token1, 13), (aux_sym_export_pragma_token1, 15),
     (anon_sym_SEMI, 310), (anon_sym_PERCENT, 312), (aux_sym_input_decls_token1, 2094),
     (aux_sym_output_decls_token1, 2096), (aux_sym_in_out_decls_token1, 318),
     (aux_sym_var_decls_token1, 2098), (aux_sym_temp_var_decls_token1, 322),
     (aux_sym_external_var_decls_token1, 324), (aux_sym_global_var_decls_token1, 326),
     (aux_sym_method_decl_token1, 330), (aux_sym_method_decl_token3, 2486),
     (aux_sym_prog_access_decls_token1, 332), (aux_sym_config_init_token1, 336),
     (aux_sym__stmt_token1, 340), (aux_sym__stmt_token2, 340), (aux_sym__stmt_token3, 340),
     (aux_sym_if_stmt_token1, 342), (aux_sym_case_stmt_token1, 344), (aux_sym_for_stmt_token1, 346),
     (aux_sym_while_stmt_token1, 348), (aux_sym_repeat_stmt_token1, 350),
     (aux_sym_raise_stmt_token1, 352), (aux_sym_try_stmt_token1, 354),
     (aux_sym_try_stmt_token2, 356), (aux_sym_catch_clause_token1, 356),
     (aux_sym_finally_clause_token1, 356), (sym_ld_rung, 2102), (sym_fbd_network, 2104),
     (sym_c_style_comment, 3), (sym_pascal_style_comment, 3), (sym_pragma, 3)]"

lemma ts_parse_row_1013_scan: "row_scan tokens_63_2 0 ts_parse_row_1013 = Some (Suc (Suc (Suc (Suc 0))))"
  unfolding ts_parse_row_1013_def by simp

text \<open>Lines 168702 to 168805.\<close>

definition ts_parse_row_1014 :: parse_row where
  "ts_parse_row_1014 =
    [(sym_ERR_assign_func_call, 7530), (sym_ERR_unexpected_this_in_path, 2372),
     (sym_ERR_unexpected_super_in_path, 2372), (sym_ERR_var_access_not_allowed, 3196),
     (sym_ERR_var_config_not_allowed, 3196), (sym_ERR_var_external_not_allowed, 3196),
     (sym_ERR_var_global_not_allowed, 3196), (sym_ERR_method_decl_in_body, 3150),
     (sym_extern_pragma, 7490), (sym_wasm_pragma, 3150), (sym_warn_pragma, 7490),
     (sym_allow_pragma, 3140), (sym_test_pragma, 7490), (sym_once_pragma, 7490),
     (sym_must_call_pragma, 7490), (sym_export_pragma, 7490), (sym_pou_pragma, 7194),
     (sym_direct_variable, 7675), (sym_deref_expression, 2373), (sym_variable, 7599),
     (sym_var_access, 2373), (sym_input_decls, 3196), (sym_output_decls, 3196),
     (sym_in_out_decls, 3196), (sym_var_decls, 3196), (sym_temp_var_decls, 3196),
     (sym_external_var_decls, 3197), (sym_global_var_decls, 2947), (sym_func_body, 10230),
     (sym_method_decl, 3159), (sym__method_decl_variables, 2368), (sym_prog_access_decls, 3043),
     (sym_config_init, 3047), (sym_variable_access, 7530), (sym_func_call, 2961),
     (sym_stmt_list, 8165), (sym__stmt, 2024), (sym_assign, 3150), (sym_if_stmt, 3150),
     (sym_case_stmt, 3150), (sym_for_stmt, 3150), (sym_while_stmt, 3150), (sym_repeat_stmt, 3150),
     (sym_raise_stmt, 3150), (sym_try_stmt, 3150), (sym_ERR_clause_outside_try, 3150),
     (sym_begin_path_expression, 2943), (sym_invocation, 2934), (sym_any_invocation, 2935),
     (sym_this_invocation, 2641), (sym_super_invocation, 2641), (sym_super_body_invocation, 2935),
     (sym_path_expression, 2627), (sym_field_expression, 2373), (sym_index_expression, 2373),
     (sym_ladder_diagram, 8165), (sym_fb_diagram, 8165), (aux_sym_func_decl_repeat1, 7194),
     (aux_sym_method_decl_repeat1, 2368), (aux_sym_stmt_list_repeat1, 2024),
     (aux_sym_ladder_diagram_repeat1, 7628), (aux_sym_fb_diagram_repeat1, 7633),
     (sym_identifier, 298), (aux_sym_ERR_unexpected_this_in_path_token1, 304),
     (aux_sym_ERR_unexpected_super_in_path_token1, 306), (sym_line_comment, 3),
     (anon_sym_LBRACE, 308), (aux_sym_test_pragma_token1, 9), (aux_sym_once_pragma_token1, 11),
     (aux_sym_must_call_pragma_token1, 13), (aux_sym_export_pragma_token1, 15),
     (anon_sym_SEMI, 310), (anon_sym_PERCENT, 312), (aux_sym_input_decls_token1, 2094),
     (aux_sym_output_decls_token1, 2096), (aux_sym_in_out_decls_token1, 318),
     (aux_sym_var_decls_token1, 2098), (aux_sym_temp_var_decls_token1, 322),
     (aux_sym_external_var_decls_token1, 324), (aux_sym_global_var_decls_token1, 326),
     (aux_sym_method_decl_token1, 330), (aux_sym_method_decl_token3, 2488),
     (aux_sym_prog_access_decls_token1, 332), (aux_sym_config_init_token1, 336),
     (aux_sym__stmt_token1, 340), (aux_sym__stmt_token2, 340), (aux_sym__stmt_token3, 340),
     (aux_sym_if_stmt_token1, 342), (aux_sym_case_stmt_token1, 344), (aux_sym_for_stmt_token1, 346),
     (aux_sym_while_stmt_token1, 348), (aux_sym_repeat_stmt_token1, 350),
     (aux_sym_raise_stmt_token1, 352), (aux_sym_try_stmt_token1, 354),
     (aux_sym_try_stmt_token2, 356), (aux_sym_catch_clause_token1, 356),
     (aux_sym_finally_clause_token1, 356), (sym_ld_rung, 2102), (sym_fbd_network, 2104),
     (sym_c_style_comment, 3), (sym_pascal_style_comment, 3), (sym_pragma, 3)]"

lemma ts_parse_row_1014_scan: "row_scan tokens_63_2 0 ts_parse_row_1014 = Some (Suc (Suc (Suc (Suc 0))))"
  unfolding ts_parse_row_1014_def by simp

text \<open>Lines 168806 to 168909.\<close>

definition ts_parse_row_1015 :: parse_row where
  "ts_parse_row_1015 =
    [(sym_ERR_assign_func_call, 7530), (sym_ERR_unexpected_this_in_path, 2372),
     (sym_ERR_unexpected_super_in_path, 2372), (sym_ERR_var_access_not_allowed, 3196),
     (sym_ERR_var_config_not_allowed, 3196), (sym_ERR_var_external_not_allowed, 3196),
     (sym_ERR_var_global_not_allowed, 3196), (sym_ERR_method_decl_in_body, 3150),
     (sym_extern_pragma, 7490), (sym_wasm_pragma, 3150), (sym_warn_pragma, 7490),
     (sym_allow_pragma, 3140), (sym_test_pragma, 7490), (sym_once_pragma, 7490),
     (sym_must_call_pragma, 7490), (sym_export_pragma, 7490), (sym_pou_pragma, 7194),
     (sym_direct_variable, 7675), (sym_deref_expression, 2373), (sym_variable, 7599),
     (sym_var_access, 2373), (sym_input_decls, 3196), (sym_output_decls, 3196),
     (sym_in_out_decls, 3196), (sym_var_decls, 3196), (sym_temp_var_decls, 3196),
     (sym_external_var_decls, 3197), (sym_global_var_decls, 2947), (sym_func_body, 10232),
     (sym_method_decl, 3159), (sym__method_decl_variables, 2368), (sym_prog_access_decls, 3043),
     (sym_config_init, 3047), (sym_variable_access, 7530), (sym_func_call, 2961),
     (sym_stmt_list, 8165), (sym__stmt, 2024), (sym_assign, 3150), (sym_if_stmt, 3150),
     (sym_case_stmt, 3150), (sym_for_stmt, 3150), (sym_while_stmt, 3150), (sym_repeat_stmt, 3150),
     (sym_raise_stmt, 3150), (sym_try_stmt, 3150), (sym_ERR_clause_outside_try, 3150),
     (sym_begin_path_expression, 2943), (sym_invocation, 2934), (sym_any_invocation, 2935),
     (sym_this_invocation, 2641), (sym_super_invocation, 2641), (sym_super_body_invocation, 2935),
     (sym_path_expression, 2627), (sym_field_expression, 2373), (sym_index_expression, 2373),
     (sym_ladder_diagram, 8165), (sym_fb_diagram, 8165), (aux_sym_func_decl_repeat1, 7194),
     (aux_sym_method_decl_repeat1, 2368), (aux_sym_stmt_list_repeat1, 2024),
     (aux_sym_ladder_diagram_repeat1, 7628), (aux_sym_fb_diagram_repeat1, 7633),
     (sym_identifier, 298), (aux_sym_ERR_unexpected_this_in_path_token1, 304),
     (aux_sym_ERR_unexpected_super_in_path_token1, 306), (sym_line_comment, 3),
     (anon_sym_LBRACE, 308), (aux_sym_test_pragma_token1, 9), (aux_sym_once_pragma_token1, 11),
     (aux_sym_must_call_pragma_token1, 13), (aux_sym_export_pragma_token1, 15),
     (anon_sym_SEMI, 310), (anon_sym_PERCENT, 312), (aux_sym_input_decls_token1, 2094),
     (aux_sym_output_decls_token1, 2096), (aux_sym_in_out_decls_token1, 318),
     (aux_sym_var_decls_token1, 2098), (aux_sym_temp_var_decls_token1, 322),
     (aux_sym_external_var_decls_token1, 324), (aux_sym_global_var_decls_token1, 326),
     (aux_sym_method_decl_token1, 330), (aux_sym_method_decl_token3, 2490),
     (aux_sym_prog_access_decls_token1, 332), (aux_sym_config_init_token1, 336),
     (aux_sym__stmt_token1, 340), (aux_sym__stmt_token2, 340), (aux_sym__stmt_token3, 340),
     (aux_sym_if_stmt_token1, 342), (aux_sym_case_stmt_token1, 344), (aux_sym_for_stmt_token1, 346),
     (aux_sym_while_stmt_token1, 348), (aux_sym_repeat_stmt_token1, 350),
     (aux_sym_raise_stmt_token1, 352), (aux_sym_try_stmt_token1, 354),
     (aux_sym_try_stmt_token2, 356), (aux_sym_catch_clause_token1, 356),
     (aux_sym_finally_clause_token1, 356), (sym_ld_rung, 2102), (sym_fbd_network, 2104),
     (sym_c_style_comment, 3), (sym_pascal_style_comment, 3), (sym_pragma, 3)]"

lemma ts_parse_row_1015_scan: "row_scan tokens_63_2 0 ts_parse_row_1015 = Some (Suc (Suc (Suc (Suc 0))))"
  unfolding ts_parse_row_1015_def by simp

text \<open>Lines 168910 to 169013.\<close>

definition ts_parse_row_1016 :: parse_row where
  "ts_parse_row_1016 =
    [(sym_ERR_assign_func_call, 7530), (sym_ERR_unexpected_this_in_path, 2372),
     (sym_ERR_unexpected_super_in_path, 2372), (sym_ERR_var_access_not_allowed, 3196),
     (sym_ERR_var_config_not_allowed, 3196), (sym_ERR_var_external_not_allowed, 3196),
     (sym_ERR_var_global_not_allowed, 3196), (sym_ERR_method_decl_in_body, 3150),
     (sym_extern_pragma, 7490), (sym_wasm_pragma, 3150), (sym_warn_pragma, 7490),
     (sym_allow_pragma, 3140), (sym_test_pragma, 7490), (sym_once_pragma, 7490),
     (sym_must_call_pragma, 7490), (sym_export_pragma, 7490), (sym_pou_pragma, 7194),
     (sym_direct_variable, 7675), (sym_deref_expression, 2373), (sym_variable, 7599),
     (sym_var_access, 2373), (sym_input_decls, 3196), (sym_output_decls, 3196),
     (sym_in_out_decls, 3196), (sym_var_decls, 3196), (sym_temp_var_decls, 3196),
     (sym_external_var_decls, 3197), (sym_global_var_decls, 2947), (sym_func_body, 10233),
     (sym_method_decl, 3159), (sym__method_decl_variables, 1027), (sym_prog_access_decls, 3043),
     (sym_config_init, 3047), (sym_variable_access, 7530), (sym_func_call, 2961),
     (sym_stmt_list, 8165), (sym__stmt, 2024), (sym_assign, 3150), (sym_if_stmt, 3150),
     (sym_case_stmt, 3150), (sym_for_stmt, 3150), (sym_while_stmt, 3150), (sym_repeat_stmt, 3150),
     (sym_raise_stmt, 3150), (sym_try_stmt, 3150), (sym_ERR_clause_outside_try, 3150),
     (sym_begin_path_expression, 2943), (sym_invocation, 2934), (sym_any_invocation, 2935),
     (sym_this_invocation, 2641), (sym_super_invocation, 2641), (sym_super_body_invocation, 2935),
     (sym_path_expression, 2627), (sym_field_expression, 2373), (sym_index_expression, 2373),
     (sym_ladder_diagram, 8165), (sym_fb_diagram, 8165), (aux_sym_func_decl_repeat1, 7194),
     (aux_sym_method_decl_repeat1, 1027), (aux_sym_stmt_list_repeat1, 2024),
     (aux_sym_ladder_diagram_repeat1, 7628), (aux_sym_fb_diagram_repeat1, 7633),
     (sym_identifier, 298), (aux_sym_ERR_unexpected_this_in_path_token1, 304),
     (aux_sym_ERR_unexpected_super_in_path_token1, 306), (sym_line_comment, 3),
     (anon_sym_LBRACE, 308), (aux_sym_test_pragma_token1, 9), (aux_sym_once_pragma_token1, 11),
     (aux_sym_must_call_pragma_token1, 13), (aux_sym_export_pragma_token1, 15),
     (anon_sym_SEMI, 310), (anon_sym_PERCENT, 312), (aux_sym_input_decls_token1, 2094),
     (aux_sym_output_decls_token1, 2096), (aux_sym_in_out_decls_token1, 318),
     (aux_sym_var_decls_token1, 2098), (aux_sym_temp_var_decls_token1, 322),
     (aux_sym_external_var_decls_token1, 324), (aux_sym_global_var_decls_token1, 326),
     (aux_sym_method_decl_token1, 330), (aux_sym_method_decl_token3, 2492),
     (aux_sym_prog_access_decls_token1, 332), (aux_sym_config_init_token1, 336),
     (aux_sym__stmt_token1, 340), (aux_sym__stmt_token2, 340), (aux_sym__stmt_token3, 340),
     (aux_sym_if_stmt_token1, 342), (aux_sym_case_stmt_token1, 344), (aux_sym_for_stmt_token1, 346),
     (aux_sym_while_stmt_token1, 348), (aux_sym_repeat_stmt_token1, 350),
     (aux_sym_raise_stmt_token1, 352), (aux_sym_try_stmt_token1, 354),
     (aux_sym_try_stmt_token2, 356), (aux_sym_catch_clause_token1, 356),
     (aux_sym_finally_clause_token1, 356), (sym_ld_rung, 2102), (sym_fbd_network, 2104),
     (sym_c_style_comment, 3), (sym_pascal_style_comment, 3), (sym_pragma, 3)]"

lemma ts_parse_row_1016_scan: "row_scan tokens_63_2 0 ts_parse_row_1016 = Some (Suc (Suc (Suc (Suc 0))))"
  unfolding ts_parse_row_1016_def by simp

text \<open>Lines 169014 to 169117.\<close>

definition ts_parse_row_1017 :: parse_row where
  "ts_parse_row_1017 =
    [(sym_ERR_assign_func_call, 7530), (sym_ERR_unexpected_this_in_path, 2372),
     (sym_ERR_unexpected_super_in_path, 2372), (sym_ERR_var_access_not_allowed, 3196),
     (sym_ERR_var_config_not_allowed, 3196), (sym_ERR_var_external_not_allowed, 3196),
     (sym_ERR_var_global_not_allowed, 3196), (sym_ERR_method_decl_in_body, 3150),
     (sym_extern_pragma, 7490), (sym_wasm_pragma, 3150), (sym_warn_pragma, 7490),
     (sym_allow_pragma, 3140), (sym_test_pragma, 7490), (sym_once_pragma, 7490),
     (sym_must_call_pragma, 7490), (sym_export_pragma, 7490), (sym_pou_pragma, 7194),
     (sym_direct_variable, 7675), (sym_deref_expression, 2373), (sym_variable, 7599),
     (sym_var_access, 2373), (sym_input_decls, 3196), (sym_output_decls, 3196),
     (sym_in_out_decls, 3196), (sym_var_decls, 3196), (sym_temp_var_decls, 3196),
     (sym_external_var_decls, 3197), (sym_global_var_decls, 2947), (sym_func_body, 10235),
     (sym_method_decl, 3159), (sym__method_decl_variables, 2368), (sym_prog_access_decls, 3043),
     (sym_config_init, 3047), (sym_variable_access, 7530), (sym_func_call, 2961),
     (sym_stmt_list, 8165), (sym__stmt, 2024), (sym_assign, 3150), (sym_if_stmt, 3150),
     (sym_case_stmt, 3150), (sym_for_stmt, 3150), (sym_while_stmt, 3150), (sym_repeat_stmt, 3150),
     (sym_raise_stmt, 3150), (sym_try_stmt, 3150), (sym_ERR_clause_outside_try, 3150),
     (sym_begin_path_expression, 2943), (sym_invocation, 2934), (sym_any_invocation, 2935),
     (sym_this_invocation, 2641), (sym_super_invocation, 2641), (sym_super_body_invocation, 2935),
     (sym_path_expression, 2627), (sym_field_expression, 2373), (sym_index_expression, 2373),
     (sym_ladder_diagram, 8165), (sym_fb_diagram, 8165), (aux_sym_func_decl_repeat1, 7194),
     (aux_sym_method_decl_repeat1, 2368), (aux_sym_stmt_list_repeat1, 2024),
     (aux_sym_ladder_diagram_repeat1, 7628), (aux_sym_fb_diagram_repeat1, 7633),
     (sym_identifier, 298), (aux_sym_ERR_unexpected_this_in_path_token1, 304),
     (aux_sym_ERR_unexpected_super_in_path_token1, 306), (sym_line_comment, 3),
     (anon_sym_LBRACE, 308), (aux_sym_test_pragma_token1, 9), (aux_sym_once_pragma_token1, 11),
     (aux_sym_must_call_pragma_token1, 13), (aux_sym_export_pragma_token1, 15),
     (anon_sym_SEMI, 310), (anon_sym_PERCENT, 312), (aux_sym_input_decls_token1, 2094),
     (aux_sym_output_decls_token1, 2096), (aux_sym_in_out_decls_token1, 318),
     (aux_sym_var_decls_token1, 2098), (aux_sym_temp_var_decls_token1, 322),
     (aux_sym_external_var_decls_token1, 324), (aux_sym_global_var_decls_token1, 326),
     (aux_sym_method_decl_token1, 330), (aux_sym_method_decl_token3, 2494),
     (aux_sym_prog_access_decls_token1, 332), (aux_sym_config_init_token1, 336),
     (aux_sym__stmt_token1, 340), (aux_sym__stmt_token2, 340), (aux_sym__stmt_token3, 340),
     (aux_sym_if_stmt_token1, 342), (aux_sym_case_stmt_token1, 344), (aux_sym_for_stmt_token1, 346),
     (aux_sym_while_stmt_token1, 348), (aux_sym_repeat_stmt_token1, 350),
     (aux_sym_raise_stmt_token1, 352), (aux_sym_try_stmt_token1, 354),
     (aux_sym_try_stmt_token2, 356), (aux_sym_catch_clause_token1, 356),
     (aux_sym_finally_clause_token1, 356), (sym_ld_rung, 2102), (sym_fbd_network, 2104),
     (sym_c_style_comment, 3), (sym_pascal_style_comment, 3), (sym_pragma, 3)]"

lemma ts_parse_row_1017_scan: "row_scan tokens_63_2 0 ts_parse_row_1017 = Some (Suc (Suc (Suc (Suc 0))))"
  unfolding ts_parse_row_1017_def by simp

text \<open>Lines 169118 to 169221.\<close>

definition ts_parse_row_1018 :: parse_row where
  "ts_parse_row_1018 =
    [(sym_ERR_assign_func_call, 7530), (sym_ERR_unexpected_this_in_path, 2372),
     (sym_ERR_unexpected_super_in_path, 2372), (sym_ERR_var_access_not_allowed, 3196),
     (sym_ERR_var_config_not_allowed, 3196), (sym_ERR_var_external_not_allowed, 3196),
     (sym_ERR_var_global_not_allowed, 3196), (sym_ERR_method_decl_in_body, 3150),
     (sym_extern_pragma, 7490), (sym_wasm_pragma, 3150), (sym_warn_pragma, 7490),
     (sym_allow_pragma, 3140), (sym_test_pragma, 7490), (sym_once_pragma, 7490),
     (sym_must_call_pragma, 7490), (sym_export_pragma, 7490), (sym_pou_pragma, 7194),
     (sym_direct_variable, 7675), (sym_deref_expression, 2373), (sym_variable, 7599),
     (sym_var_access, 2373), (sym_input_decls, 3196), (sym_output_decls, 3196),
     (sym_in_out_decls, 3196), (sym_var_decls, 3196), (sym_temp_var_decls, 3196),
     (sym_external_var_decls, 3197), (sym_global_var_decls, 2947), (sym_func_body, 10236),
     (sym_method_decl, 3159), (sym__method_decl_variables, 1028), (sym_prog_access_decls, 3043),
     (sym_config_init, 3047), (sym_variable_access, 7530), (sym_func_call, 2961),
     (sym_stmt_list, 8165), (sym__stmt, 2024), (sym_assign, 3150), (sym_if_stmt, 3150),
     (sym_case_stmt, 3150), (sym_for_stmt, 3150), (sym_while_stmt, 3150), (sym_repeat_stmt, 3150),
     (sym_raise_stmt, 3150), (sym_try_stmt, 3150), (sym_ERR_clause_outside_try, 3150),
     (sym_begin_path_expression, 2943), (sym_invocation, 2934), (sym_any_invocation, 2935),
     (sym_this_invocation, 2641), (sym_super_invocation, 2641), (sym_super_body_invocation, 2935),
     (sym_path_expression, 2627), (sym_field_expression, 2373), (sym_index_expression, 2373),
     (sym_ladder_diagram, 8165), (sym_fb_diagram, 8165), (aux_sym_func_decl_repeat1, 7194),
     (aux_sym_method_decl_repeat1, 1028), (aux_sym_stmt_list_repeat1, 2024),
     (aux_sym_ladder_diagram_repeat1, 7628), (aux_sym_fb_diagram_repeat1, 7633),
     (sym_identifier, 298), (aux_sym_ERR_unexpected_this_in_path_token1, 304),
     (aux_sym_ERR_unexpected_super_in_path_token1, 306), (sym_line_comment, 3),
     (anon_sym_LBRACE, 308), (aux_sym_test_pragma_token1, 9), (aux_sym_once_pragma_token1, 11),
     (aux_sym_must_call_pragma_token1, 13), (aux_sym_export_pragma_token1, 15),
     (anon_sym_SEMI, 310), (anon_sym_PERCENT, 312), (aux_sym_input_decls_token1, 2094),
     (aux_sym_output_decls_token1, 2096), (aux_sym_in_out_decls_token1, 318),
     (aux_sym_var_decls_token1, 2098), (aux_sym_temp_var_decls_token1, 322),
     (aux_sym_external_var_decls_token1, 324), (aux_sym_global_var_decls_token1, 326),
     (aux_sym_method_decl_token1, 330), (aux_sym_method_decl_token3, 2496),
     (aux_sym_prog_access_decls_token1, 332), (aux_sym_config_init_token1, 336),
     (aux_sym__stmt_token1, 340), (aux_sym__stmt_token2, 340), (aux_sym__stmt_token3, 340),
     (aux_sym_if_stmt_token1, 342), (aux_sym_case_stmt_token1, 344), (aux_sym_for_stmt_token1, 346),
     (aux_sym_while_stmt_token1, 348), (aux_sym_repeat_stmt_token1, 350),
     (aux_sym_raise_stmt_token1, 352), (aux_sym_try_stmt_token1, 354),
     (aux_sym_try_stmt_token2, 356), (aux_sym_catch_clause_token1, 356),
     (aux_sym_finally_clause_token1, 356), (sym_ld_rung, 2102), (sym_fbd_network, 2104),
     (sym_c_style_comment, 3), (sym_pascal_style_comment, 3), (sym_pragma, 3)]"

lemma ts_parse_row_1018_scan: "row_scan tokens_63_2 0 ts_parse_row_1018 = Some (Suc (Suc (Suc (Suc 0))))"
  unfolding ts_parse_row_1018_def by simp

text \<open>Lines 169222 to 169325.\<close>

definition ts_parse_row_1019 :: parse_row where
  "ts_parse_row_1019 =
    [(sym_ERR_assign_func_call, 7530), (sym_ERR_unexpected_this_in_path, 2372),
     (sym_ERR_unexpected_super_in_path, 2372), (sym_ERR_var_access_not_allowed, 3196),
     (sym_ERR_var_config_not_allowed, 3196), (sym_ERR_var_external_not_allowed, 3196),
     (sym_ERR_var_global_not_allowed, 3196), (sym_ERR_method_decl_in_body, 3150),
     (sym_extern_pragma, 7490), (sym_wasm_pragma, 3150), (sym_warn_pragma, 7490),
     (sym_allow_pragma, 3140), (sym_test_pragma, 7490), (sym_once_pragma, 7490),
     (sym_must_call_pragma, 7490), (sym_export_pragma, 7490), (sym_pou_pragma, 7194),
     (sym_direct_variable, 7675), (sym_deref_expression, 2373), (sym_variable, 7599),
     (sym_var_access, 2373), (sym_input_decls, 3196), (sym_output_decls, 3196),
     (sym_in_out_decls, 3196), (sym_var_decls, 3196), (sym_temp_var_decls, 3196),
     (sym_external_var_decls, 3197), (sym_global_var_decls, 2947), (sym_func_body, 10238),
     (sym_method_decl, 3159), (sym__method_decl_variables, 2368), (sym_prog_access_decls, 3043),
     (sym_config_init, 3047), (sym_variable_access, 7530), (sym_func_call, 2961),
     (sym_stmt_list, 8165), (sym__stmt, 2024), (sym_assign, 3150), (sym_if_stmt, 3150),
     (sym_case_stmt, 3150), (sym_for_stmt, 3150), (sym_while_stmt, 3150), (sym_repeat_stmt, 3150),
     (sym_raise_stmt, 3150), (sym_try_stmt, 3150), (sym_ERR_clause_outside_try, 3150),
     (sym_begin_path_expression, 2943), (sym_invocation, 2934), (sym_any_invocation, 2935),
     (sym_this_invocation, 2641), (sym_super_invocation, 2641), (sym_super_body_invocation, 2935),
     (sym_path_expression, 2627), (sym_field_expression, 2373), (sym_index_expression, 2373),
     (sym_ladder_diagram, 8165), (sym_fb_diagram, 8165), (aux_sym_func_decl_repeat1, 7194),
     (aux_sym_method_decl_repeat1, 2368), (aux_sym_stmt_list_repeat1, 2024),
     (aux_sym_ladder_diagram_repeat1, 7628), (aux_sym_fb_diagram_repeat1, 7633),
     (sym_identifier, 298), (aux_sym_ERR_unexpected_this_in_path_token1, 304),
     (aux_sym_ERR_unexpected_super_in_path_token1, 306), (sym_line_comment, 3),
     (anon_sym_LBRACE, 308), (aux_sym_test_pragma_token1, 9), (aux_sym_once_pragma_token1, 11),
     (aux_sym_must_call_pragma_token1, 13), (aux_sym_export_pragma_token1, 15),
     (anon_sym_SEMI, 310), (anon_sym_PERCENT, 312), (aux_sym_input_decls_token1, 2094),
     (aux_sym_output_decls_token1, 2096), (aux_sym_in_out_decls_token1, 318),
     (aux_sym_var_decls_token1, 2098), (aux_sym_temp_var_decls_token1, 322),
     (aux_sym_external_var_decls_token1, 324), (aux_sym_global_var_decls_token1, 326),
     (aux_sym_method_decl_token1, 330), (aux_sym_method_decl_token3, 2498),
     (aux_sym_prog_access_decls_token1, 332), (aux_sym_config_init_token1, 336),
     (aux_sym__stmt_token1, 340), (aux_sym__stmt_token2, 340), (aux_sym__stmt_token3, 340),
     (aux_sym_if_stmt_token1, 342), (aux_sym_case_stmt_token1, 344), (aux_sym_for_stmt_token1, 346),
     (aux_sym_while_stmt_token1, 348), (aux_sym_repeat_stmt_token1, 350),
     (aux_sym_raise_stmt_token1, 352), (aux_sym_try_stmt_token1, 354),
     (aux_sym_try_stmt_token2, 356), (aux_sym_catch_clause_token1, 356),
     (aux_sym_finally_clause_token1, 356), (sym_ld_rung, 2102), (sym_fbd_network, 2104),
     (sym_c_style_comment, 3), (sym_pascal_style_comment, 3), (sym_pragma, 3)]"

lemma ts_parse_row_1019_scan: "row_scan tokens_63_2 0 ts_parse_row_1019 = Some (Suc (Suc (Suc (Suc 0))))"
  unfolding ts_parse_row_1019_def by simp

text \<open>Lines 169326 to 169429.\<close>

definition ts_parse_row_1020 :: parse_row where
  "ts_parse_row_1020 =
    [(sym_ERR_assign_func_call, 7530), (sym_ERR_unexpected_this_in_path, 2372),
     (sym_ERR_unexpected_super_in_path, 2372), (sym_ERR_var_access_not_allowed, 3196),
     (sym_ERR_var_config_not_allowed, 3196), (sym_ERR_var_external_not_allowed, 3196),
     (sym_ERR_var_global_not_allowed, 3196), (sym_ERR_method_decl_in_body, 3150),
     (sym_extern_pragma, 7490), (sym_wasm_pragma, 3150), (sym_warn_pragma, 7490),
     (sym_allow_pragma, 3140), (sym_test_pragma, 7490), (sym_once_pragma, 7490),
     (sym_must_call_pragma, 7490), (sym_export_pragma, 7490), (sym_pou_pragma, 7194),
     (sym_direct_variable, 7675), (sym_deref_expression, 2373), (sym_variable, 7599),
     (sym_var_access, 2373), (sym_input_decls, 3196), (sym_output_decls, 3196),
     (sym_in_out_decls, 3196), (sym_var_decls, 3196), (sym_temp_var_decls, 3196),
     (sym_external_var_decls, 3197), (sym_global_var_decls, 2947), (sym_func_body, 10239),
     (sym_method_decl, 3159), (sym__method_decl_variables, 2368), (sym_prog_access_decls, 3043),
     (sym_config_init, 3047), (sym_variable_access, 7530), (sym_func_call, 2961),
     (sym_stmt_list, 8165), (sym__stmt, 2024), (sym_assign, 3150), (sym_if_stmt, 3150),
     (sym_case_stmt, 3150), (sym_for_stmt, 3150), (sym_while_stmt, 3150), (sym_repeat_stmt, 3150),
     (sym_raise_stmt, 3150), (sym_try_stmt, 3150), (sym_ERR_clause_outside_try, 3150),
     (sym_begin_path_expression, 2943), (sym_invocation, 2934), (sym_any_invocation, 2935),
     (sym_this_invocation, 2641), (sym_super_invocation, 2641), (sym_super_body_invocation, 2935),
     (sym_path_expression, 2627), (sym_field_expression, 2373), (sym_index_expression, 2373),
     (sym_ladder_diagram, 8165), (sym_fb_diagram, 8165), (aux_sym_func_decl_repeat1, 7194),
     (aux_sym_method_decl_repeat1, 2368), (aux_sym_stmt_list_repeat1, 2024),
     (aux_sym_ladder_diagram_repeat1, 7628), (aux_sym_fb_diagram_repeat1, 7633),
     (sym_identifier, 298), (aux_sym_ERR_unexpected_this_in_path_token1, 304),
     (aux_sym_ERR_unexpected_super_in_path_token1, 306), (sym_line_comment, 3),
     (anon_sym_LBRACE, 308), (aux_sym_test_pragma_token1, 9), (aux_sym_once_pragma_token1, 11),
     (aux_sym_must_call_pragma_token1, 13), (aux_sym_export_pragma_token1, 15),
     (anon_sym_SEMI, 310), (anon_sym_PERCENT, 312), (aux_sym_input_decls_token1, 2094),
     (aux_sym_output_decls_token1, 2096), (aux_sym_in_out_decls_token1, 318),
     (aux_sym_var_decls_token1, 2098), (aux_sym_temp_var_decls_token1, 322),
     (aux_sym_external_var_decls_token1, 324), (aux_sym_global_var_decls_token1, 326),
     (aux_sym_method_decl_token1, 330), (aux_sym_method_decl_token3, 2500),
     (aux_sym_prog_access_decls_token1, 332), (aux_sym_config_init_token1, 336),
     (aux_sym__stmt_token1, 340), (aux_sym__stmt_token2, 340), (aux_sym__stmt_token3, 340),
     (aux_sym_if_stmt_token1, 342), (aux_sym_case_stmt_token1, 344), (aux_sym_for_stmt_token1, 346),
     (aux_sym_while_stmt_token1, 348), (aux_sym_repeat_stmt_token1, 350),
     (aux_sym_raise_stmt_token1, 352), (aux_sym_try_stmt_token1, 354),
     (aux_sym_try_stmt_token2, 356), (aux_sym_catch_clause_token1, 356),
     (aux_sym_finally_clause_token1, 356), (sym_ld_rung, 2102), (sym_fbd_network, 2104),
     (sym_c_style_comment, 3), (sym_pascal_style_comment, 3), (sym_pragma, 3)]"

lemma ts_parse_row_1020_scan: "row_scan tokens_63_2 0 ts_parse_row_1020 = Some (Suc (Suc (Suc (Suc 0))))"
  unfolding ts_parse_row_1020_def by simp

text \<open>Lines 169430 to 169533.\<close>

definition ts_parse_row_1021 :: parse_row where
  "ts_parse_row_1021 =
    [(sym_ERR_assign_func_call, 7530), (sym_ERR_unexpected_this_in_path, 2372),
     (sym_ERR_unexpected_super_in_path, 2372), (sym_ERR_var_access_not_allowed, 3196),
     (sym_ERR_var_config_not_allowed, 3196), (sym_ERR_var_external_not_allowed, 3196),
     (sym_ERR_var_global_not_allowed, 3196), (sym_ERR_method_decl_in_body, 3150),
     (sym_extern_pragma, 7490), (sym_wasm_pragma, 3150), (sym_warn_pragma, 7490),
     (sym_allow_pragma, 3140), (sym_test_pragma, 7490), (sym_once_pragma, 7490),
     (sym_must_call_pragma, 7490), (sym_export_pragma, 7490), (sym_pou_pragma, 7194),
     (sym_direct_variable, 7675), (sym_deref_expression, 2373), (sym_variable, 7599),
     (sym_var_access, 2373), (sym_input_decls, 3196), (sym_output_decls, 3196),
     (sym_in_out_decls, 3196), (sym_var_decls, 3196), (sym_temp_var_decls, 3196),
     (sym_external_var_decls, 3197), (sym_global_var_decls, 2947), (sym_func_body, 10240),
     (sym_method_decl, 3159), (sym__method_decl_variables, 1029), (sym_prog_access_decls, 3043),
     (sym_config_init, 3047), (sym_variable_access, 7530), (sym_func_call, 2961),
     (sym_stmt_list, 8165), (sym__stmt, 2024), (sym_assign, 3150), (sym_if_stmt, 3150),
     (sym_case_stmt, 3150), (sym_for_stmt, 3150), (sym_while_stmt, 3150), (sym_repeat_stmt, 3150),
     (sym_raise_stmt, 3150), (sym_try_stmt, 3150), (sym_ERR_clause_outside_try, 3150),
     (sym_begin_path_expression, 2943), (sym_invocation, 2934), (sym_any_invocation, 2935),
     (sym_this_invocation, 2641), (sym_super_invocation, 2641), (sym_super_body_invocation, 2935),
     (sym_path_expression, 2627), (sym_field_expression, 2373), (sym_index_expression, 2373),
     (sym_ladder_diagram, 8165), (sym_fb_diagram, 8165), (aux_sym_func_decl_repeat1, 7194),
     (aux_sym_method_decl_repeat1, 1029), (aux_sym_stmt_list_repeat1, 2024),
     (aux_sym_ladder_diagram_repeat1, 7628), (aux_sym_fb_diagram_repeat1, 7633),
     (sym_identifier, 298), (aux_sym_ERR_unexpected_this_in_path_token1, 304),
     (aux_sym_ERR_unexpected_super_in_path_token1, 306), (sym_line_comment, 3),
     (anon_sym_LBRACE, 308), (aux_sym_test_pragma_token1, 9), (aux_sym_once_pragma_token1, 11),
     (aux_sym_must_call_pragma_token1, 13), (aux_sym_export_pragma_token1, 15),
     (anon_sym_SEMI, 310), (anon_sym_PERCENT, 312), (aux_sym_input_decls_token1, 2094),
     (aux_sym_output_decls_token1, 2096), (aux_sym_in_out_decls_token1, 318),
     (aux_sym_var_decls_token1, 2098), (aux_sym_temp_var_decls_token1, 322),
     (aux_sym_external_var_decls_token1, 324), (aux_sym_global_var_decls_token1, 326),
     (aux_sym_method_decl_token1, 330), (aux_sym_method_decl_token3, 2502),
     (aux_sym_prog_access_decls_token1, 332), (aux_sym_config_init_token1, 336),
     (aux_sym__stmt_token1, 340), (aux_sym__stmt_token2, 340), (aux_sym__stmt_token3, 340),
     (aux_sym_if_stmt_token1, 342), (aux_sym_case_stmt_token1, 344), (aux_sym_for_stmt_token1, 346),
     (aux_sym_while_stmt_token1, 348), (aux_sym_repeat_stmt_token1, 350),
     (aux_sym_raise_stmt_token1, 352), (aux_sym_try_stmt_token1, 354),
     (aux_sym_try_stmt_token2, 356), (aux_sym_catch_clause_token1, 356),
     (aux_sym_finally_clause_token1, 356), (sym_ld_rung, 2102), (sym_fbd_network, 2104),
     (sym_c_style_comment, 3), (sym_pascal_style_comment, 3), (sym_pragma, 3)]"

lemma ts_parse_row_1021_scan: "row_scan tokens_63_2 0 ts_parse_row_1021 = Some (Suc (Suc (Suc (Suc 0))))"
  unfolding ts_parse_row_1021_def by simp

text \<open>Lines 169534 to 169637.\<close>

definition ts_parse_row_1022 :: parse_row where
  "ts_parse_row_1022 =
    [(sym_ERR_assign_func_call, 7530), (sym_ERR_unexpected_this_in_path, 2372),
     (sym_ERR_unexpected_super_in_path, 2372), (sym_ERR_var_access_not_allowed, 3196),
     (sym_ERR_var_config_not_allowed, 3196), (sym_ERR_var_external_not_allowed, 3196),
     (sym_ERR_var_global_not_allowed, 3196), (sym_ERR_method_decl_in_body, 3150),
     (sym_extern_pragma, 7490), (sym_wasm_pragma, 3150), (sym_warn_pragma, 7490),
     (sym_allow_pragma, 3140), (sym_test_pragma, 7490), (sym_once_pragma, 7490),
     (sym_must_call_pragma, 7490), (sym_export_pragma, 7490), (sym_pou_pragma, 7194),
     (sym_direct_variable, 7675), (sym_deref_expression, 2373), (sym_variable, 7599),
     (sym_var_access, 2373), (sym_input_decls, 3196), (sym_output_decls, 3196),
     (sym_in_out_decls, 3196), (sym_var_decls, 3196), (sym_temp_var_decls, 3196),
     (sym_external_var_decls, 3197), (sym_global_var_decls, 2947), (sym_func_body, 10242),
     (sym_method_decl, 3159), (sym__method_decl_variables, 2368), (sym_prog_access_decls, 3043),
     (sym_config_init, 3047), (sym_variable_access, 7530), (sym_func_call, 2961),
     (sym_stmt_list, 8165), (sym__stmt, 2024), (sym_assign, 3150), (sym_if_stmt, 3150),
     (sym_case_stmt, 3150), (sym_for_stmt, 3150), (sym_while_stmt, 3150), (sym_repeat_stmt, 3150),
     (sym_raise_stmt, 3150), (sym_try_stmt, 3150), (sym_ERR_clause_outside_try, 3150),
     (sym_begin_path_expression, 2943), (sym_invocation, 2934), (sym_any_invocation, 2935),
     (sym_this_invocation, 2641), (sym_super_invocation, 2641), (sym_super_body_invocation, 2935),
     (sym_path_expression, 2627), (sym_field_expression, 2373), (sym_index_expression, 2373),
     (sym_ladder_diagram, 8165), (sym_fb_diagram, 8165), (aux_sym_func_decl_repeat1, 7194),
     (aux_sym_method_decl_repeat1, 2368), (aux_sym_stmt_list_repeat1, 2024),
     (aux_sym_ladder_diagram_repeat1, 7628), (aux_sym_fb_diagram_repeat1, 7633),
     (sym_identifier, 298), (aux_sym_ERR_unexpected_this_in_path_token1, 304),
     (aux_sym_ERR_unexpected_super_in_path_token1, 306), (sym_line_comment, 3),
     (anon_sym_LBRACE, 308), (aux_sym_test_pragma_token1, 9), (aux_sym_once_pragma_token1, 11),
     (aux_sym_must_call_pragma_token1, 13), (aux_sym_export_pragma_token1, 15),
     (anon_sym_SEMI, 310), (anon_sym_PERCENT, 312), (aux_sym_input_decls_token1, 2094),
     (aux_sym_output_decls_token1, 2096), (aux_sym_in_out_decls_token1, 318),
     (aux_sym_var_decls_token1, 2098), (aux_sym_temp_var_decls_token1, 322),
     (aux_sym_external_var_decls_token1, 324), (aux_sym_global_var_decls_token1, 326),
     (aux_sym_method_decl_token1, 330), (aux_sym_method_decl_token3, 2504),
     (aux_sym_prog_access_decls_token1, 332), (aux_sym_config_init_token1, 336),
     (aux_sym__stmt_token1, 340), (aux_sym__stmt_token2, 340), (aux_sym__stmt_token3, 340),
     (aux_sym_if_stmt_token1, 342), (aux_sym_case_stmt_token1, 344), (aux_sym_for_stmt_token1, 346),
     (aux_sym_while_stmt_token1, 348), (aux_sym_repeat_stmt_token1, 350),
     (aux_sym_raise_stmt_token1, 352), (aux_sym_try_stmt_token1, 354),
     (aux_sym_try_stmt_token2, 356), (aux_sym_catch_clause_token1, 356),
     (aux_sym_finally_clause_token1, 356), (sym_ld_rung, 2102), (sym_fbd_network, 2104),
     (sym_c_style_comment, 3), (sym_pascal_style_comment, 3), (sym_pragma, 3)]"

lemma ts_parse_row_1022_scan: "row_scan tokens_63_2 0 ts_parse_row_1022 = Some (Suc (Suc (Suc (Suc 0))))"
  unfolding ts_parse_row_1022_def by simp

text \<open>Lines 169638 to 169741.\<close>

definition ts_parse_row_1023 :: parse_row where
  "ts_parse_row_1023 =
    [(sym_ERR_assign_func_call, 7530), (sym_ERR_unexpected_this_in_path, 2372),
     (sym_ERR_unexpected_super_in_path, 2372), (sym_ERR_var_access_not_allowed, 3196),
     (sym_ERR_var_config_not_allowed, 3196), (sym_ERR_var_external_not_allowed, 3196),
     (sym_ERR_var_global_not_allowed, 3196), (sym_ERR_method_decl_in_body, 3150),
     (sym_extern_pragma, 7490), (sym_wasm_pragma, 3150), (sym_warn_pragma, 7490),
     (sym_allow_pragma, 3140), (sym_test_pragma, 7490), (sym_once_pragma, 7490),
     (sym_must_call_pragma, 7490), (sym_export_pragma, 7490), (sym_pou_pragma, 7194),
     (sym_direct_variable, 7675), (sym_deref_expression, 2373), (sym_variable, 7599),
     (sym_var_access, 2373), (sym_input_decls, 3196), (sym_output_decls, 3196),
     (sym_in_out_decls, 3196), (sym_var_decls, 3196), (sym_temp_var_decls, 3196),
     (sym_external_var_decls, 3197), (sym_global_var_decls, 2947), (sym_func_body, 10243),
     (sym_method_decl, 3159), (sym__method_decl_variables, 2368), (sym_prog_access_decls, 3043),
     (sym_config_init, 3047), (sym_variable_access, 7530), (sym_func_call, 2961),
     (sym_stmt_list, 8165), (sym__stmt, 2024), (sym_assign, 3150), (sym_if_stmt, 3150),
     (sym_case_stmt, 3150), (sym_for_stmt, 3150), (sym_while_stmt, 3150), (sym_repeat_stmt, 3150),
     (sym_raise_stmt, 3150), (sym_try_stmt, 3150), (sym_ERR_clause_outside_try, 3150),
     (sym_begin_path_expression, 2943), (sym_invocation, 2934), (sym_any_invocation, 2935),
     (sym_this_invocation, 2641), (sym_super_invocation, 2641), (sym_super_body_invocation, 2935),
     (sym_path_expression, 2627), (sym_field_expression, 2373), (sym_index_expression, 2373),
     (sym_ladder_diagram, 8165), (sym_fb_diagram, 8165), (aux_sym_func_decl_repeat1, 7194),
     (aux_sym_method_decl_repeat1, 2368), (aux_sym_stmt_list_repeat1, 2024),
     (aux_sym_ladder_diagram_repeat1, 7628), (aux_sym_fb_diagram_repeat1, 7633),
     (sym_identifier, 298), (aux_sym_ERR_unexpected_this_in_path_token1, 304),
     (aux_sym_ERR_unexpected_super_in_path_token1, 306), (sym_line_comment, 3),
     (anon_sym_LBRACE, 308), (aux_sym_test_pragma_token1, 9), (aux_sym_once_pragma_token1, 11),
     (aux_sym_must_call_pragma_token1, 13), (aux_sym_export_pragma_token1, 15),
     (anon_sym_SEMI, 310), (anon_sym_PERCENT, 312), (aux_sym_input_decls_token1, 2094),
     (aux_sym_output_decls_token1, 2096), (aux_sym_in_out_decls_token1, 318),
     (aux_sym_var_decls_token1, 2098), (aux_sym_temp_var_decls_token1, 322),
     (aux_sym_external_var_decls_token1, 324), (aux_sym_global_var_decls_token1, 326),
     (aux_sym_method_decl_token1, 330), (aux_sym_method_decl_token3, 2506),
     (aux_sym_prog_access_decls_token1, 332), (aux_sym_config_init_token1, 336),
     (aux_sym__stmt_token1, 340), (aux_sym__stmt_token2, 340), (aux_sym__stmt_token3, 340),
     (aux_sym_if_stmt_token1, 342), (aux_sym_case_stmt_token1, 344), (aux_sym_for_stmt_token1, 346),
     (aux_sym_while_stmt_token1, 348), (aux_sym_repeat_stmt_token1, 350),
     (aux_sym_raise_stmt_token1, 352), (aux_sym_try_stmt_token1, 354),
     (aux_sym_try_stmt_token2, 356), (aux_sym_catch_clause_token1, 356),
     (aux_sym_finally_clause_token1, 356), (sym_ld_rung, 2102), (sym_fbd_network, 2104),
     (sym_c_style_comment, 3), (sym_pascal_style_comment, 3), (sym_pragma, 3)]"

lemma ts_parse_row_1023_scan: "row_scan tokens_63_2 0 ts_parse_row_1023 = Some (Suc (Suc (Suc (Suc 0))))"
  unfolding ts_parse_row_1023_def by simp

text \<open>Lines 169742 to 169845.\<close>

definition ts_parse_row_1024 :: parse_row where
  "ts_parse_row_1024 =
    [(sym_ERR_assign_func_call, 7530), (sym_ERR_unexpected_this_in_path, 2372),
     (sym_ERR_unexpected_super_in_path, 2372), (sym_ERR_var_access_not_allowed, 3196),
     (sym_ERR_var_config_not_allowed, 3196), (sym_ERR_var_external_not_allowed, 3196),
     (sym_ERR_var_global_not_allowed, 3196), (sym_ERR_method_decl_in_body, 3150),
     (sym_extern_pragma, 7490), (sym_wasm_pragma, 3150), (sym_warn_pragma, 7490),
     (sym_allow_pragma, 3140), (sym_test_pragma, 7490), (sym_once_pragma, 7490),
     (sym_must_call_pragma, 7490), (sym_export_pragma, 7490), (sym_pou_pragma, 7194),
     (sym_direct_variable, 7675), (sym_deref_expression, 2373), (sym_variable, 7599),
     (sym_var_access, 2373), (sym_input_decls, 3196), (sym_output_decls, 3196),
     (sym_in_out_decls, 3196), (sym_var_decls, 3196), (sym_temp_var_decls, 3196),
     (sym_external_var_decls, 3197), (sym_global_var_decls, 2947), (sym_func_body, 10245),
     (sym_method_decl, 3159), (sym__method_decl_variables, 2368), (sym_prog_access_decls, 3043),
     (sym_config_init, 3047), (sym_variable_access, 7530), (sym_func_call, 2961),
     (sym_stmt_list, 8165), (sym__stmt, 2024), (sym_assign, 3150), (sym_if_stmt, 3150),
     (sym_case_stmt, 3150), (sym_for_stmt, 3150), (sym_while_stmt, 3150), (sym_repeat_stmt, 3150),
     (sym_raise_stmt, 3150), (sym_try_stmt, 3150), (sym_ERR_clause_outside_try, 3150),
     (sym_begin_path_expression, 2943), (sym_invocation, 2934), (sym_any_invocation, 2935),
     (sym_this_invocation, 2641), (sym_super_invocation, 2641), (sym_super_body_invocation, 2935),
     (sym_path_expression, 2627), (sym_field_expression, 2373), (sym_index_expression, 2373),
     (sym_ladder_diagram, 8165), (sym_fb_diagram, 8165), (aux_sym_func_decl_repeat1, 7194),
     (aux_sym_method_decl_repeat1, 2368), (aux_sym_stmt_list_repeat1, 2024),
     (aux_sym_ladder_diagram_repeat1, 7628), (aux_sym_fb_diagram_repeat1, 7633),
     (sym_identifier, 298), (aux_sym_ERR_unexpected_this_in_path_token1, 304),
     (aux_sym_ERR_unexpected_super_in_path_token1, 306), (sym_line_comment, 3),
     (anon_sym_LBRACE, 308), (aux_sym_test_pragma_token1, 9), (aux_sym_once_pragma_token1, 11),
     (aux_sym_must_call_pragma_token1, 13), (aux_sym_export_pragma_token1, 15),
     (anon_sym_SEMI, 310), (anon_sym_PERCENT, 312), (aux_sym_input_decls_token1, 2094),
     (aux_sym_output_decls_token1, 2096), (aux_sym_in_out_decls_token1, 318),
     (aux_sym_var_decls_token1, 2098), (aux_sym_temp_var_decls_token1, 322),
     (aux_sym_external_var_decls_token1, 324), (aux_sym_global_var_decls_token1, 326),
     (aux_sym_method_decl_token1, 330), (aux_sym_method_decl_token3, 2508),
     (aux_sym_prog_access_decls_token1, 332), (aux_sym_config_init_token1, 336),
     (aux_sym__stmt_token1, 340), (aux_sym__stmt_token2, 340), (aux_sym__stmt_token3, 340),
     (aux_sym_if_stmt_token1, 342), (aux_sym_case_stmt_token1, 344), (aux_sym_for_stmt_token1, 346),
     (aux_sym_while_stmt_token1, 348), (aux_sym_repeat_stmt_token1, 350),
     (aux_sym_raise_stmt_token1, 352), (aux_sym_try_stmt_token1, 354),
     (aux_sym_try_stmt_token2, 356), (aux_sym_catch_clause_token1, 356),
     (aux_sym_finally_clause_token1, 356), (sym_ld_rung, 2102), (sym_fbd_network, 2104),
     (sym_c_style_comment, 3), (sym_pascal_style_comment, 3), (sym_pragma, 3)]"

lemma ts_parse_row_1024_scan: "row_scan tokens_63_2 0 ts_parse_row_1024 = Some (Suc (Suc (Suc (Suc 0))))"
  unfolding ts_parse_row_1024_def by simp

text \<open>Lines 169846 to 169949.\<close>

definition ts_parse_row_1025 :: parse_row where
  "ts_parse_row_1025 =
    [(sym_ERR_assign_func_call, 7530), (sym_ERR_unexpected_this_in_path, 2372),
     (sym_ERR_unexpected_super_in_path, 2372), (sym_ERR_var_access_not_allowed, 3196),
     (sym_ERR_var_config_not_allowed, 3196), (sym_ERR_var_external_not_allowed, 3196),
     (sym_ERR_var_global_not_allowed, 3196), (sym_ERR_method_decl_in_body, 3150),
     (sym_extern_pragma, 7490), (sym_wasm_pragma, 3150), (sym_warn_pragma, 7490),
     (sym_allow_pragma, 3140), (sym_test_pragma, 7490), (sym_once_pragma, 7490),
     (sym_must_call_pragma, 7490), (sym_export_pragma, 7490), (sym_pou_pragma, 7194),
     (sym_direct_variable, 7675), (sym_deref_expression, 2373), (sym_variable, 7599),
     (sym_var_access, 2373), (sym_input_decls, 3196), (sym_output_decls, 3196),
     (sym_in_out_decls, 3196), (sym_var_decls, 3196), (sym_temp_var_decls, 3196),
     (sym_external_var_decls, 3197), (sym_global_var_decls, 2947), (sym_func_body, 10246),
     (sym_method_decl, 3159), (sym__method_decl_variables, 1031), (sym_prog_access_decls, 3043),
     (sym_config_init, 3047), (sym_variable_access, 7530), (sym_func_call, 2961),
     (sym_stmt_list, 8165), (sym__stmt, 2024), (sym_assign, 3150), (sym_if_stmt, 3150),
     (sym_case_stmt, 3150), (sym_for_stmt, 3150), (sym_while_stmt, 3150), (sym_repeat_stmt, 3150),
     (sym_raise_stmt, 3150), (sym_try_stmt, 3150), (sym_ERR_clause_outside_try, 3150),
     (sym_begin_path_expression, 2943), (sym_invocation, 2934), (sym_any_invocation, 2935),
     (sym_this_invocation, 2641), (sym_super_invocation, 2641), (sym_super_body_invocation, 2935),
     (sym_path_expression, 2627), (sym_field_expression, 2373), (sym_index_expression, 2373),
     (sym_ladder_diagram, 8165), (sym_fb_diagram, 8165), (aux_sym_func_decl_repeat1, 7194),
     (aux_sym_method_decl_repeat1, 1031), (aux_sym_stmt_list_repeat1, 2024),
     (aux_sym_ladder_diagram_repeat1, 7628), (aux_sym_fb_diagram_repeat1, 7633),
     (sym_identifier, 298), (aux_sym_ERR_unexpected_this_in_path_token1, 304),
     (aux_sym_ERR_unexpected_super_in_path_token1, 306), (sym_line_comment, 3),
     (anon_sym_LBRACE, 308), (aux_sym_test_pragma_token1, 9), (aux_sym_once_pragma_token1, 11),
     (aux_sym_must_call_pragma_token1, 13), (aux_sym_export_pragma_token1, 15),
     (anon_sym_SEMI, 310), (anon_sym_PERCENT, 312), (aux_sym_input_decls_token1, 2094),
     (aux_sym_output_decls_token1, 2096), (aux_sym_in_out_decls_token1, 318),
     (aux_sym_var_decls_token1, 2098), (aux_sym_temp_var_decls_token1, 322),
     (aux_sym_external_var_decls_token1, 324), (aux_sym_global_var_decls_token1, 326),
     (aux_sym_method_decl_token1, 330), (aux_sym_method_decl_token3, 2510),
     (aux_sym_prog_access_decls_token1, 332), (aux_sym_config_init_token1, 336),
     (aux_sym__stmt_token1, 340), (aux_sym__stmt_token2, 340), (aux_sym__stmt_token3, 340),
     (aux_sym_if_stmt_token1, 342), (aux_sym_case_stmt_token1, 344), (aux_sym_for_stmt_token1, 346),
     (aux_sym_while_stmt_token1, 348), (aux_sym_repeat_stmt_token1, 350),
     (aux_sym_raise_stmt_token1, 352), (aux_sym_try_stmt_token1, 354),
     (aux_sym_try_stmt_token2, 356), (aux_sym_catch_clause_token1, 356),
     (aux_sym_finally_clause_token1, 356), (sym_ld_rung, 2102), (sym_fbd_network, 2104),
     (sym_c_style_comment, 3), (sym_pascal_style_comment, 3), (sym_pragma, 3)]"

lemma ts_parse_row_1025_scan: "row_scan tokens_63_2 0 ts_parse_row_1025 = Some (Suc (Suc (Suc (Suc 0))))"
  unfolding ts_parse_row_1025_def by simp

text \<open>Lines 169950 to 170053.\<close>

definition ts_parse_row_1026 :: parse_row where
  "ts_parse_row_1026 =
    [(sym_ERR_assign_func_call, 7530), (sym_ERR_unexpected_this_in_path, 2372),
     (sym_ERR_unexpected_super_in_path, 2372), (sym_ERR_var_access_not_allowed, 3196),
     (sym_ERR_var_config_not_allowed, 3196), (sym_ERR_var_external_not_allowed, 3196),
     (sym_ERR_var_global_not_allowed, 3196), (sym_ERR_method_decl_in_body, 3150),
     (sym_extern_pragma, 7490), (sym_wasm_pragma, 3150), (sym_warn_pragma, 7490),
     (sym_allow_pragma, 3140), (sym_test_pragma, 7490), (sym_once_pragma, 7490),
     (sym_must_call_pragma, 7490), (sym_export_pragma, 7490), (sym_pou_pragma, 7194),
     (sym_direct_variable, 7675), (sym_deref_expression, 2373), (sym_variable, 7599),
     (sym_var_access, 2373), (sym_input_decls, 3196), (sym_output_decls, 3196),
     (sym_in_out_decls, 3196), (sym_var_decls, 3196), (sym_temp_var_decls, 3196),
     (sym_external_var_decls, 3197), (sym_global_var_decls, 2947), (sym_func_body, 10248),
     (sym_method_decl, 3159), (sym__method_decl_variables, 1032), (sym_prog_access_decls, 3043),
     (sym_config_init, 3047), (sym_variable_access, 7530), (sym_func_call, 2961),
     (sym_stmt_list, 8165), (sym__stmt, 2024), (sym_assign, 3150), (sym_if_stmt, 3150),
     (sym_case_stmt, 3150), (sym_for_stmt, 3150), (sym_while_stmt, 3150), (sym_repeat_stmt, 3150),
     (sym_raise_stmt, 3150), (sym_try_stmt, 3150), (sym_ERR_clause_outside_try, 3150),
     (sym_begin_path_expression, 2943), (sym_invocation, 2934), (sym_any_invocation, 2935),
     (sym_this_invocation, 2641), (sym_super_invocation, 2641), (sym_super_body_invocation, 2935),
     (sym_path_expression, 2627), (sym_field_expression, 2373), (sym_index_expression, 2373),
     (sym_ladder_diagram, 8165), (sym_fb_diagram, 8165), (aux_sym_func_decl_repeat1, 7194),
     (aux_sym_method_decl_repeat1, 1032), (aux_sym_stmt_list_repeat1, 2024),
     (aux_sym_ladder_diagram_repeat1, 7628), (aux_sym_fb_diagram_repeat1, 7633),
     (sym_identifier, 298), (aux_sym_ERR_unexpected_this_in_path_token1, 304),
     (aux_sym_ERR_unexpected_super_in_path_token1, 306), (sym_line_comment, 3),
     (anon_sym_LBRACE, 308), (aux_sym_test_pragma_token1, 9), (aux_sym_once_pragma_token1, 11),
     (aux_sym_must_call_pragma_token1, 13), (aux_sym_export_pragma_token1, 15),
     (anon_sym_SEMI, 310), (anon_sym_PERCENT, 312), (aux_sym_input_decls_token1, 2094),
     (aux_sym_output_decls_token1, 2096), (aux_sym_in_out_decls_token1, 318),
     (aux_sym_var_decls_token1, 2098), (aux_sym_temp_var_decls_token1, 322),
     (aux_sym_external_var_decls_token1, 324), (aux_sym_global_var_decls_token1, 326),
     (aux_sym_method_decl_token1, 330), (aux_sym_method_decl_token3, 2512),
     (aux_sym_prog_access_decls_token1, 332), (aux_sym_config_init_token1, 336),
     (aux_sym__stmt_token1, 340), (aux_sym__stmt_token2, 340), (aux_sym__stmt_token3, 340),
     (aux_sym_if_stmt_token1, 342), (aux_sym_case_stmt_token1, 344), (aux_sym_for_stmt_token1, 346),
     (aux_sym_while_stmt_token1, 348), (aux_sym_repeat_stmt_token1, 350),
     (aux_sym_raise_stmt_token1, 352), (aux_sym_try_stmt_token1, 354),
     (aux_sym_try_stmt_token2, 356), (aux_sym_catch_clause_token1, 356),
     (aux_sym_finally_clause_token1, 356), (sym_ld_rung, 2102), (sym_fbd_network, 2104),
     (sym_c_style_comment, 3), (sym_pascal_style_comment, 3), (sym_pragma, 3)]"

lemma ts_parse_row_1026_scan: "row_scan tokens_63_2 0 ts_parse_row_1026 = Some (Suc (Suc (Suc (Suc 0))))"
  unfolding ts_parse_row_1026_def by simp

text \<open>Lines 170054 to 170157.\<close>

definition ts_parse_row_1027 :: parse_row where
  "ts_parse_row_1027 =
    [(sym_ERR_assign_func_call, 7530), (sym_ERR_unexpected_this_in_path, 2372),
     (sym_ERR_unexpected_super_in_path, 2372), (sym_ERR_var_access_not_allowed, 3196),
     (sym_ERR_var_config_not_allowed, 3196), (sym_ERR_var_external_not_allowed, 3196),
     (sym_ERR_var_global_not_allowed, 3196), (sym_ERR_method_decl_in_body, 3150),
     (sym_extern_pragma, 7490), (sym_wasm_pragma, 3150), (sym_warn_pragma, 7490),
     (sym_allow_pragma, 3140), (sym_test_pragma, 7490), (sym_once_pragma, 7490),
     (sym_must_call_pragma, 7490), (sym_export_pragma, 7490), (sym_pou_pragma, 7194),
     (sym_direct_variable, 7675), (sym_deref_expression, 2373), (sym_variable, 7599),
     (sym_var_access, 2373), (sym_input_decls, 3196), (sym_output_decls, 3196),
     (sym_in_out_decls, 3196), (sym_var_decls, 3196), (sym_temp_var_decls, 3196),
     (sym_external_var_decls, 3197), (sym_global_var_decls, 2947), (sym_func_body, 10250),
     (sym_method_decl, 3159), (sym__method_decl_variables, 2368), (sym_prog_access_decls, 3043),
     (sym_config_init, 3047), (sym_variable_access, 7530), (sym_func_call, 2961),
     (sym_stmt_list, 8165), (sym__stmt, 2024), (sym_assign, 3150), (sym_if_stmt, 3150),
     (sym_case_stmt, 3150), (sym_for_stmt, 3150), (sym_while_stmt, 3150), (sym_repeat_stmt, 3150),
     (sym_raise_stmt, 3150), (sym_try_stmt, 3150), (sym_ERR_clause_outside_try, 3150),
     (sym_begin_path_expression, 2943), (sym_invocation, 2934), (sym_any_invocation, 2935),
     (sym_this_invocation, 2641), (sym_super_invocation, 2641), (sym_super_body_invocation, 2935),
     (sym_path_expression, 2627), (sym_field_expression, 2373), (sym_index_expression, 2373),
     (sym_ladder_diagram, 8165), (sym_fb_diagram, 8165), (aux_sym_func_decl_repeat1, 7194),
     (aux_sym_method_decl_repeat1, 2368), (aux_sym_stmt_list_repeat1, 2024),
     (aux_sym_ladder_diagram_repeat1, 7628), (aux_sym_fb_diagram_repeat1, 7633),
     (sym_identifier, 298), (aux_sym_ERR_unexpected_this_in_path_token1, 304),
     (aux_sym_ERR_unexpected_super_in_path_token1, 306), (sym_line_comment, 3),
     (anon_sym_LBRACE, 308), (aux_sym_test_pragma_token1, 9), (aux_sym_once_pragma_token1, 11),
     (aux_sym_must_call_pragma_token1, 13), (aux_sym_export_pragma_token1, 15),
     (anon_sym_SEMI, 310), (anon_sym_PERCENT, 312), (aux_sym_input_decls_token1, 2094),
     (aux_sym_output_decls_token1, 2096), (aux_sym_in_out_decls_token1, 318),
     (aux_sym_var_decls_token1, 2098), (aux_sym_temp_var_decls_token1, 322),
     (aux_sym_external_var_decls_token1, 324), (aux_sym_global_var_decls_token1, 326),
     (aux_sym_method_decl_token1, 330), (aux_sym_method_decl_token3, 2514),
     (aux_sym_prog_access_decls_token1, 332), (aux_sym_config_init_token1, 336),
     (aux_sym__stmt_token1, 340), (aux_sym__stmt_token2, 340), (aux_sym__stmt_token3, 340),
     (aux_sym_if_stmt_token1, 342), (aux_sym_case_stmt_token1, 344), (aux_sym_for_stmt_token1, 346),
     (aux_sym_while_stmt_token1, 348), (aux_sym_repeat_stmt_token1, 350),
     (aux_sym_raise_stmt_token1, 352), (aux_sym_try_stmt_token1, 354),
     (aux_sym_try_stmt_token2, 356), (aux_sym_catch_clause_token1, 356),
     (aux_sym_finally_clause_token1, 356), (sym_ld_rung, 2102), (sym_fbd_network, 2104),
     (sym_c_style_comment, 3), (sym_pascal_style_comment, 3), (sym_pragma, 3)]"

lemma ts_parse_row_1027_scan: "row_scan tokens_63_2 0 ts_parse_row_1027 = Some (Suc (Suc (Suc (Suc 0))))"
  unfolding ts_parse_row_1027_def by simp

text \<open>Lines 170158 to 170261.\<close>

definition ts_parse_row_1028 :: parse_row where
  "ts_parse_row_1028 =
    [(sym_ERR_assign_func_call, 7530), (sym_ERR_unexpected_this_in_path, 2372),
     (sym_ERR_unexpected_super_in_path, 2372), (sym_ERR_var_access_not_allowed, 3196),
     (sym_ERR_var_config_not_allowed, 3196), (sym_ERR_var_external_not_allowed, 3196),
     (sym_ERR_var_global_not_allowed, 3196), (sym_ERR_method_decl_in_body, 3150),
     (sym_extern_pragma, 7490), (sym_wasm_pragma, 3150), (sym_warn_pragma, 7490),
     (sym_allow_pragma, 3140), (sym_test_pragma, 7490), (sym_once_pragma, 7490),
     (sym_must_call_pragma, 7490), (sym_export_pragma, 7490), (sym_pou_pragma, 7194),
     (sym_direct_variable, 7675), (sym_deref_expression, 2373), (sym_variable, 7599),
     (sym_var_access, 2373), (sym_input_decls, 3196), (sym_output_decls, 3196),
     (sym_in_out_decls, 3196), (sym_var_decls, 3196), (sym_temp_var_decls, 3196),
     (sym_external_var_decls, 3197), (sym_global_var_decls, 2947), (sym_func_body, 10251),
     (sym_method_decl, 3159), (sym__method_decl_variables, 2368), (sym_prog_access_decls, 3043),
     (sym_config_init, 3047), (sym_variable_access, 7530), (sym_func_call, 2961),
     (sym_stmt_list, 8165), (sym__stmt, 2024), (sym_assign, 3150), (sym_if_stmt, 3150),
     (sym_case_stmt, 3150), (sym_for_stmt, 3150), (sym_while_stmt, 3150), (sym_repeat_stmt, 3150),
     (sym_raise_stmt, 3150), (sym_try_stmt, 3150), (sym_ERR_clause_outside_try, 3150),
     (sym_begin_path_expression, 2943), (sym_invocation, 2934), (sym_any_invocation, 2935),
     (sym_this_invocation, 2641), (sym_super_invocation, 2641), (sym_super_body_invocation, 2935),
     (sym_path_expression, 2627), (sym_field_expression, 2373), (sym_index_expression, 2373),
     (sym_ladder_diagram, 8165), (sym_fb_diagram, 8165), (aux_sym_func_decl_repeat1, 7194),
     (aux_sym_method_decl_repeat1, 2368), (aux_sym_stmt_list_repeat1, 2024),
     (aux_sym_ladder_diagram_repeat1, 7628), (aux_sym_fb_diagram_repeat1, 7633),
     (sym_identifier, 298), (aux_sym_ERR_unexpected_this_in_path_token1, 304),
     (aux_sym_ERR_unexpected_super_in_path_token1, 306), (sym_line_comment, 3),
     (anon_sym_LBRACE, 308), (aux_sym_test_pragma_token1, 9), (aux_sym_once_pragma_token1, 11),
     (aux_sym_must_call_pragma_token1, 13), (aux_sym_export_pragma_token1, 15),
     (anon_sym_SEMI, 310), (anon_sym_PERCENT, 312), (aux_sym_input_decls_token1, 2094),
     (aux_sym_output_decls_token1, 2096), (aux_sym_in_out_decls_token1, 318),
     (aux_sym_var_decls_token1, 2098), (aux_sym_temp_var_decls_token1, 322),
     (aux_sym_external_var_decls_token1, 324), (aux_sym_global_var_decls_token1, 326),
     (aux_sym_method_decl_token1, 330), (aux_sym_method_decl_token3, 2516),
     (aux_sym_prog_access_decls_token1, 332), (aux_sym_config_init_token1, 336),
     (aux_sym__stmt_token1, 340), (aux_sym__stmt_token2, 340), (aux_sym__stmt_token3, 340),
     (aux_sym_if_stmt_token1, 342), (aux_sym_case_stmt_token1, 344), (aux_sym_for_stmt_token1, 346),
     (aux_sym_while_stmt_token1, 348), (aux_sym_repeat_stmt_token1, 350),
     (aux_sym_raise_stmt_token1, 352), (aux_sym_try_stmt_token1, 354),
     (aux_sym_try_stmt_token2, 356), (aux_sym_catch_clause_token1, 356),
     (aux_sym_finally_clause_token1, 356), (sym_ld_rung, 2102), (sym_fbd_network, 2104),
     (sym_c_style_comment, 3), (sym_pascal_style_comment, 3), (sym_pragma, 3)]"

lemma ts_parse_row_1028_scan: "row_scan tokens_63_2 0 ts_parse_row_1028 = Some (Suc (Suc (Suc (Suc 0))))"
  unfolding ts_parse_row_1028_def by simp

text \<open>Lines 170262 to 170365.\<close>

definition ts_parse_row_1029 :: parse_row where
  "ts_parse_row_1029 =
    [(sym_ERR_assign_func_call, 7530), (sym_ERR_unexpected_this_in_path, 2372),
     (sym_ERR_unexpected_super_in_path, 2372), (sym_ERR_var_access_not_allowed, 3196),
     (sym_ERR_var_config_not_allowed, 3196), (sym_ERR_var_external_not_allowed, 3196),
     (sym_ERR_var_global_not_allowed, 3196), (sym_ERR_method_decl_in_body, 3150),
     (sym_extern_pragma, 7490), (sym_wasm_pragma, 3150), (sym_warn_pragma, 7490),
     (sym_allow_pragma, 3140), (sym_test_pragma, 7490), (sym_once_pragma, 7490),
     (sym_must_call_pragma, 7490), (sym_export_pragma, 7490), (sym_pou_pragma, 7194),
     (sym_direct_variable, 7675), (sym_deref_expression, 2373), (sym_variable, 7599),
     (sym_var_access, 2373), (sym_input_decls, 3196), (sym_output_decls, 3196),
     (sym_in_out_decls, 3196), (sym_var_decls, 3196), (sym_temp_var_decls, 3196),
     (sym_external_var_decls, 3197), (sym_global_var_decls, 2947), (sym_func_body, 10252),
     (sym_method_decl, 3159), (sym__method_decl_variables, 2368), (sym_prog_access_decls, 3043),
     (sym_config_init, 3047), (sym_variable_access, 7530), (sym_func_call, 2961),
     (sym_stmt_list, 8165), (sym__stmt, 2024), (sym_assign, 3150), (sym_if_stmt, 3150),
     (sym_case_stmt, 3150), (sym_for_stmt, 3150), (sym_while_stmt, 3150), (sym_repeat_stmt, 3150),
     (sym_raise_stmt, 3150), (sym_try_stmt, 3150), (sym_ERR_clause_outside_try, 3150),
     (sym_begin_path_expression, 2943), (sym_invocation, 2934), (sym_any_invocation, 2935),
     (sym_this_invocation, 2641), (sym_super_invocation, 2641), (sym_super_body_invocation, 2935),
     (sym_path_expression, 2627), (sym_field_expression, 2373), (sym_index_expression, 2373),
     (sym_ladder_diagram, 8165), (sym_fb_diagram, 8165), (aux_sym_func_decl_repeat1, 7194),
     (aux_sym_method_decl_repeat1, 2368), (aux_sym_stmt_list_repeat1, 2024),
     (aux_sym_ladder_diagram_repeat1, 7628), (aux_sym_fb_diagram_repeat1, 7633),
     (sym_identifier, 298), (aux_sym_ERR_unexpected_this_in_path_token1, 304),
     (aux_sym_ERR_unexpected_super_in_path_token1, 306), (sym_line_comment, 3),
     (anon_sym_LBRACE, 308), (aux_sym_test_pragma_token1, 9), (aux_sym_once_pragma_token1, 11),
     (aux_sym_must_call_pragma_token1, 13), (aux_sym_export_pragma_token1, 15),
     (anon_sym_SEMI, 310), (anon_sym_PERCENT, 312), (aux_sym_input_decls_token1, 2094),
     (aux_sym_output_decls_token1, 2096), (aux_sym_in_out_decls_token1, 318),
     (aux_sym_var_decls_token1, 2098), (aux_sym_temp_var_decls_token1, 322),
     (aux_sym_external_var_decls_token1, 324), (aux_sym_global_var_decls_token1, 326),
     (aux_sym_method_decl_token1, 330), (aux_sym_method_decl_token3, 2518),
     (aux_sym_prog_access_decls_token1, 332), (aux_sym_config_init_token1, 336),
     (aux_sym__stmt_token1, 340), (aux_sym__stmt_token2, 340), (aux_sym__stmt_token3, 340),
     (aux_sym_if_stmt_token1, 342), (aux_sym_case_stmt_token1, 344), (aux_sym_for_stmt_token1, 346),
     (aux_sym_while_stmt_token1, 348), (aux_sym_repeat_stmt_token1, 350),
     (aux_sym_raise_stmt_token1, 352), (aux_sym_try_stmt_token1, 354),
     (aux_sym_try_stmt_token2, 356), (aux_sym_catch_clause_token1, 356),
     (aux_sym_finally_clause_token1, 356), (sym_ld_rung, 2102), (sym_fbd_network, 2104),
     (sym_c_style_comment, 3), (sym_pascal_style_comment, 3), (sym_pragma, 3)]"

lemma ts_parse_row_1029_scan: "row_scan tokens_63_2 0 ts_parse_row_1029 = Some (Suc (Suc (Suc (Suc 0))))"
  unfolding ts_parse_row_1029_def by simp

text \<open>Lines 170366 to 170469.\<close>

definition ts_parse_row_1030 :: parse_row where
  "ts_parse_row_1030 =
    [(sym_ERR_assign_func_call, 7530), (sym_ERR_unexpected_this_in_path, 2372),
     (sym_ERR_unexpected_super_in_path, 2372), (sym_ERR_var_access_not_allowed, 3196),
     (sym_ERR_var_config_not_allowed, 3196), (sym_ERR_var_external_not_allowed, 3196),
     (sym_ERR_var_global_not_allowed, 3196), (sym_ERR_method_decl_in_body, 3150),
     (sym_extern_pragma, 7490), (sym_wasm_pragma, 3150), (sym_warn_pragma, 7490),
     (sym_allow_pragma, 3140), (sym_test_pragma, 7490), (sym_once_pragma, 7490),
     (sym_must_call_pragma, 7490), (sym_export_pragma, 7490), (sym_pou_pragma, 7194),
     (sym_direct_variable, 7675), (sym_deref_expression, 2373), (sym_variable, 7599),
     (sym_var_access, 2373), (sym_input_decls, 3196), (sym_output_decls, 3196),
     (sym_in_out_decls, 3196), (sym_var_decls, 3196), (sym_temp_var_decls, 3196),
     (sym_external_var_decls, 3197), (sym_global_var_decls, 2947), (sym_func_body, 10253),
     (sym_method_decl, 3159), (sym__method_decl_variables, 1033), (sym_prog_access_decls, 3043),
     (sym_config_init, 3047), (sym_variable_access, 7530), (sym_func_call, 2961),
     (sym_stmt_list, 8165), (sym__stmt, 2024), (sym_assign, 3150), (sym_if_stmt, 3150),
     (sym_case_stmt, 3150), (sym_for_stmt, 3150), (sym_while_stmt, 3150), (sym_repeat_stmt, 3150),
     (sym_raise_stmt, 3150), (sym_try_stmt, 3150), (sym_ERR_clause_outside_try, 3150),
     (sym_begin_path_expression, 2943), (sym_invocation, 2934), (sym_any_invocation, 2935),
     (sym_this_invocation, 2641), (sym_super_invocation, 2641), (sym_super_body_invocation, 2935),
     (sym_path_expression, 2627), (sym_field_expression, 2373), (sym_index_expression, 2373),
     (sym_ladder_diagram, 8165), (sym_fb_diagram, 8165), (aux_sym_func_decl_repeat1, 7194),
     (aux_sym_method_decl_repeat1, 1033), (aux_sym_stmt_list_repeat1, 2024),
     (aux_sym_ladder_diagram_repeat1, 7628), (aux_sym_fb_diagram_repeat1, 7633),
     (sym_identifier, 298), (aux_sym_ERR_unexpected_this_in_path_token1, 304),
     (aux_sym_ERR_unexpected_super_in_path_token1, 306), (sym_line_comment, 3),
     (anon_sym_LBRACE, 308), (aux_sym_test_pragma_token1, 9), (aux_sym_once_pragma_token1, 11),
     (aux_sym_must_call_pragma_token1, 13), (aux_sym_export_pragma_token1, 15),
     (anon_sym_SEMI, 310), (anon_sym_PERCENT, 312), (aux_sym_input_decls_token1, 2094),
     (aux_sym_output_decls_token1, 2096), (aux_sym_in_out_decls_token1, 318),
     (aux_sym_var_decls_token1, 2098), (aux_sym_temp_var_decls_token1, 322),
     (aux_sym_external_var_decls_token1, 324), (aux_sym_global_var_decls_token1, 326),
     (aux_sym_method_decl_token1, 330), (aux_sym_method_decl_token3, 2520),
     (aux_sym_prog_access_decls_token1, 332), (aux_sym_config_init_token1, 336),
     (aux_sym__stmt_token1, 340), (aux_sym__stmt_token2, 340), (aux_sym__stmt_token3, 340),
     (aux_sym_if_stmt_token1, 342), (aux_sym_case_stmt_token1, 344), (aux_sym_for_stmt_token1, 346),
     (aux_sym_while_stmt_token1, 348), (aux_sym_repeat_stmt_token1, 350),
     (aux_sym_raise_stmt_token1, 352), (aux_sym_try_stmt_token1, 354),
     (aux_sym_try_stmt_token2, 356), (aux_sym_catch_clause_token1, 356),
     (aux_sym_finally_clause_token1, 356), (sym_ld_rung, 2102), (sym_fbd_network, 2104),
     (sym_c_style_comment, 3), (sym_pascal_style_comment, 3), (sym_pragma, 3)]"

lemma ts_parse_row_1030_scan: "row_scan tokens_63_2 0 ts_parse_row_1030 = Some (Suc (Suc (Suc (Suc 0))))"
  unfolding ts_parse_row_1030_def by simp

text \<open>Lines 170470 to 170573.\<close>

definition ts_parse_row_1031 :: parse_row where
  "ts_parse_row_1031 =
    [(sym_ERR_assign_func_call, 7530), (sym_ERR_unexpected_this_in_path, 2372),
     (sym_ERR_unexpected_super_in_path, 2372), (sym_ERR_var_access_not_allowed, 3196),
     (sym_ERR_var_config_not_allowed, 3196), (sym_ERR_var_external_not_allowed, 3196),
     (sym_ERR_var_global_not_allowed, 3196), (sym_ERR_method_decl_in_body, 3150),
     (sym_extern_pragma, 7490), (sym_wasm_pragma, 3150), (sym_warn_pragma, 7490),
     (sym_allow_pragma, 3140), (sym_test_pragma, 7490), (sym_once_pragma, 7490),
     (sym_must_call_pragma, 7490), (sym_export_pragma, 7490), (sym_pou_pragma, 7194),
     (sym_direct_variable, 7675), (sym_deref_expression, 2373), (sym_variable, 7599),
     (sym_var_access, 2373), (sym_input_decls, 3196), (sym_output_decls, 3196),
     (sym_in_out_decls, 3196), (sym_var_decls, 3196), (sym_temp_var_decls, 3196),
     (sym_external_var_decls, 3197), (sym_global_var_decls, 2947), (sym_func_body, 10255),
     (sym_method_decl, 3159), (sym__method_decl_variables, 2368), (sym_prog_access_decls, 3043),
     (sym_config_init, 3047), (sym_variable_access, 7530), (sym_func_call, 2961),
     (sym_stmt_list, 8165), (sym__stmt, 2024), (sym_assign, 3150), (sym_if_stmt, 3150),
     (sym_case_stmt, 3150), (sym_for_stmt, 3150), (sym_while_stmt, 3150), (sym_repeat_stmt, 3150),
     (sym_raise_stmt, 3150), (sym_try_stmt, 3150), (sym_ERR_clause_outside_try, 3150),
     (sym_begin_path_expression, 2943), (sym_invocation, 2934), (sym_any_invocation, 2935),
     (sym_this_invocation, 2641), (sym_super_invocation, 2641), (sym_super_body_invocation, 2935),
     (sym_path_expression, 2627), (sym_field_expression, 2373), (sym_index_expression, 2373),
     (sym_ladder_diagram, 8165), (sym_fb_diagram, 8165), (aux_sym_func_decl_repeat1, 7194),
     (aux_sym_method_decl_repeat1, 2368), (aux_sym_stmt_list_repeat1, 2024),
     (aux_sym_ladder_diagram_repeat1, 7628), (aux_sym_fb_diagram_repeat1, 7633),
     (sym_identifier, 298), (aux_sym_ERR_unexpected_this_in_path_token1, 304),
     (aux_sym_ERR_unexpected_super_in_path_token1, 306), (sym_line_comment, 3),
     (anon_sym_LBRACE, 308), (aux_sym_test_pragma_token1, 9), (aux_sym_once_pragma_token1, 11),
     (aux_sym_must_call_pragma_token1, 13), (aux_sym_export_pragma_token1, 15),
     (anon_sym_SEMI, 310), (anon_sym_PERCENT, 312), (aux_sym_input_decls_token1, 2094),
     (aux_sym_output_decls_token1, 2096), (aux_sym_in_out_decls_token1, 318),
     (aux_sym_var_decls_token1, 2098), (aux_sym_temp_var_decls_token1, 322),
     (aux_sym_external_var_decls_token1, 324), (aux_sym_global_var_decls_token1, 326),
     (aux_sym_method_decl_token1, 330), (aux_sym_method_decl_token3, 2522),
     (aux_sym_prog_access_decls_token1, 332), (aux_sym_config_init_token1, 336),
     (aux_sym__stmt_token1, 340), (aux_sym__stmt_token2, 340), (aux_sym__stmt_token3, 340),
     (aux_sym_if_stmt_token1, 342), (aux_sym_case_stmt_token1, 344), (aux_sym_for_stmt_token1, 346),
     (aux_sym_while_stmt_token1, 348), (aux_sym_repeat_stmt_token1, 350),
     (aux_sym_raise_stmt_token1, 352), (aux_sym_try_stmt_token1, 354),
     (aux_sym_try_stmt_token2, 356), (aux_sym_catch_clause_token1, 356),
     (aux_sym_finally_clause_token1, 356), (sym_ld_rung, 2102), (sym_fbd_network, 2104),
     (sym_c_style_comment, 3), (sym_pascal_style_comment, 3), (sym_pragma, 3)]"

lemma ts_parse_row_1031_scan: "row_scan tokens_63_2 0 ts_parse_row_1031 = Some (Suc (Suc (Suc (Suc 0))))"
  unfolding ts_parse_row_1031_def by simp

text \<open>Lines 170574 to 170677.\<close>

definition ts_parse_row_1032 :: parse_row where
  "ts_parse_row_1032 =
    [(sym_ERR_assign_func_call, 7530), (sym_ERR_unexpected_this_in_path, 2372),
     (sym_ERR_unexpected_super_in_path, 2372), (sym_ERR_var_access_not_allowed, 3196),
     (sym_ERR_var_config_not_allowed, 3196), (sym_ERR_var_external_not_allowed, 3196),
     (sym_ERR_var_global_not_allowed, 3196), (sym_ERR_method_decl_in_body, 3150),
     (sym_extern_pragma, 7490), (sym_wasm_pragma, 3150), (sym_warn_pragma, 7490),
     (sym_allow_pragma, 3140), (sym_test_pragma, 7490), (sym_once_pragma, 7490),
     (sym_must_call_pragma, 7490), (sym_export_pragma, 7490), (sym_pou_pragma, 7194),
     (sym_direct_variable, 7675), (sym_deref_expression, 2373), (sym_variable, 7599),
     (sym_var_access, 2373), (sym_input_decls, 3196), (sym_output_decls, 3196),
     (sym_in_out_decls, 3196), (sym_var_decls, 3196), (sym_temp_var_decls, 3196),
     (sym_external_var_decls, 3197), (sym_global_var_decls, 2947), (sym_func_body, 10256),
     (sym_method_decl, 3159), (sym__method_decl_variables, 2368), (sym_prog_access_decls, 3043),
     (sym_config_init, 3047), (sym_variable_access, 7530), (sym_func_call, 2961),
     (sym_stmt_list, 8165), (sym__stmt, 2024), (sym_assign, 3150), (sym_if_stmt, 3150),
     (sym_case_stmt, 3150), (sym_for_stmt, 3150), (sym_while_stmt, 3150), (sym_repeat_stmt, 3150),
     (sym_raise_stmt, 3150), (sym_try_stmt, 3150), (sym_ERR_clause_outside_try, 3150),
     (sym_begin_path_expression, 2943), (sym_invocation, 2934), (sym_any_invocation, 2935),
     (sym_this_invocation, 2641), (sym_super_invocation, 2641), (sym_super_body_invocation, 2935),
     (sym_path_expression, 2627), (sym_field_expression, 2373), (sym_index_expression, 2373),
     (sym_ladder_diagram, 8165), (sym_fb_diagram, 8165), (aux_sym_func_decl_repeat1, 7194),
     (aux_sym_method_decl_repeat1, 2368), (aux_sym_stmt_list_repeat1, 2024),
     (aux_sym_ladder_diagram_repeat1, 7628), (aux_sym_fb_diagram_repeat1, 7633),
     (sym_identifier, 298), (aux_sym_ERR_unexpected_this_in_path_token1, 304),
     (aux_sym_ERR_unexpected_super_in_path_token1, 306), (sym_line_comment, 3),
     (anon_sym_LBRACE, 308), (aux_sym_test_pragma_token1, 9), (aux_sym_once_pragma_token1, 11),
     (aux_sym_must_call_pragma_token1, 13), (aux_sym_export_pragma_token1, 15),
     (anon_sym_SEMI, 310), (anon_sym_PERCENT, 312), (aux_sym_input_decls_token1, 2094),
     (aux_sym_output_decls_token1, 2096), (aux_sym_in_out_decls_token1, 318),
     (aux_sym_var_decls_token1, 2098), (aux_sym_temp_var_decls_token1, 322),
     (aux_sym_external_var_decls_token1, 324), (aux_sym_global_var_decls_token1, 326),
     (aux_sym_method_decl_token1, 330), (aux_sym_method_decl_token3, 2524),
     (aux_sym_prog_access_decls_token1, 332), (aux_sym_config_init_token1, 336),
     (aux_sym__stmt_token1, 340), (aux_sym__stmt_token2, 340), (aux_sym__stmt_token3, 340),
     (aux_sym_if_stmt_token1, 342), (aux_sym_case_stmt_token1, 344), (aux_sym_for_stmt_token1, 346),
     (aux_sym_while_stmt_token1, 348), (aux_sym_repeat_stmt_token1, 350),
     (aux_sym_raise_stmt_token1, 352), (aux_sym_try_stmt_token1, 354),
     (aux_sym_try_stmt_token2, 356), (aux_sym_catch_clause_token1, 356),
     (aux_sym_finally_clause_token1, 356), (sym_ld_rung, 2102), (sym_fbd_network, 2104),
     (sym_c_style_comment, 3), (sym_pascal_style_comment, 3), (sym_pragma, 3)]"

lemma ts_parse_row_1032_scan: "row_scan tokens_63_2 0 ts_parse_row_1032 = Some (Suc (Suc (Suc (Suc 0))))"
  unfolding ts_parse_row_1032_def by simp

text \<open>Lines 170678 to 170781.\<close>

definition ts_parse_row_1033 :: parse_row where
  "ts_parse_row_1033 =
    [(sym_ERR_assign_func_call, 7530), (sym_ERR_unexpected_this_in_path, 2372),
     (sym_ERR_unexpected_super_in_path, 2372), (sym_ERR_var_access_not_allowed, 3196),
     (sym_ERR_var_config_not_allowed, 3196), (sym_ERR_var_external_not_allowed, 3196),
     (sym_ERR_var_global_not_allowed, 3196), (sym_ERR_method_decl_in_body, 3150),
     (sym_extern_pragma, 7490), (sym_wasm_pragma, 3150), (sym_warn_pragma, 7490),
     (sym_allow_pragma, 3140), (sym_test_pragma, 7490), (sym_once_pragma, 7490),
     (sym_must_call_pragma, 7490), (sym_export_pragma, 7490), (sym_pou_pragma, 7194),
     (sym_direct_variable, 7675), (sym_deref_expression, 2373), (sym_variable, 7599),
     (sym_var_access, 2373), (sym_input_decls, 3196), (sym_output_decls, 3196),
     (sym_in_out_decls, 3196), (sym_var_decls, 3196), (sym_temp_var_decls, 3196),
     (sym_external_var_decls, 3197), (sym_global_var_decls, 2947), (sym_func_body, 10257),
     (sym_method_decl, 3159), (sym__method_decl_variables, 2368), (sym_prog_access_decls, 3043),
     (sym_config_init, 3047), (sym_variable_access, 7530), (sym_func_call, 2961),
     (sym_stmt_list, 8165), (sym__stmt, 2024), (sym_assign, 3150), (sym_if_stmt, 3150),
     (sym_case_stmt, 3150), (sym_for_stmt, 3150), (sym_while_stmt, 3150), (sym_repeat_stmt, 3150),
     (sym_raise_stmt, 3150), (sym_try_stmt, 3150), (sym_ERR_clause_outside_try, 3150),
     (sym_begin_path_expression, 2943), (sym_invocation, 2934), (sym_any_invocation, 2935),
     (sym_this_invocation, 2641), (sym_super_invocation, 2641), (sym_super_body_invocation, 2935),
     (sym_path_expression, 2627), (sym_field_expression, 2373), (sym_index_expression, 2373),
     (sym_ladder_diagram, 8165), (sym_fb_diagram, 8165), (aux_sym_func_decl_repeat1, 7194),
     (aux_sym_method_decl_repeat1, 2368), (aux_sym_stmt_list_repeat1, 2024),
     (aux_sym_ladder_diagram_repeat1, 7628), (aux_sym_fb_diagram_repeat1, 7633),
     (sym_identifier, 298), (aux_sym_ERR_unexpected_this_in_path_token1, 304),
     (aux_sym_ERR_unexpected_super_in_path_token1, 306), (sym_line_comment, 3),
     (anon_sym_LBRACE, 308), (aux_sym_test_pragma_token1, 9), (aux_sym_once_pragma_token1, 11),
     (aux_sym_must_call_pragma_token1, 13), (aux_sym_export_pragma_token1, 15),
     (anon_sym_SEMI, 310), (anon_sym_PERCENT, 312), (aux_sym_input_decls_token1, 2094),
     (aux_sym_output_decls_token1, 2096), (aux_sym_in_out_decls_token1, 318),
     (aux_sym_var_decls_token1, 2098), (aux_sym_temp_var_decls_token1, 322),
     (aux_sym_external_var_decls_token1, 324), (aux_sym_global_var_decls_token1, 326),
     (aux_sym_method_decl_token1, 330), (aux_sym_method_decl_token3, 2526),
     (aux_sym_prog_access_decls_token1, 332), (aux_sym_config_init_token1, 336),
     (aux_sym__stmt_token1, 340), (aux_sym__stmt_token2, 340), (aux_sym__stmt_token3, 340),
     (aux_sym_if_stmt_token1, 342), (aux_sym_case_stmt_token1, 344), (aux_sym_for_stmt_token1, 346),
     (aux_sym_while_stmt_token1, 348), (aux_sym_repeat_stmt_token1, 350),
     (aux_sym_raise_stmt_token1, 352), (aux_sym_try_stmt_token1, 354),
     (aux_sym_try_stmt_token2, 356), (aux_sym_catch_clause_token1, 356),
     (aux_sym_finally_clause_token1, 356), (sym_ld_rung, 2102), (sym_fbd_network, 2104),
     (sym_c_style_comment, 3), (sym_pascal_style_comment, 3), (sym_pragma, 3)]"

lemma ts_parse_row_1033_scan: "row_scan tokens_63_2 0 ts_parse_row_1033 = Some (Suc (Suc (Suc (Suc 0))))"
  unfolding ts_parse_row_1033_def by simp

text \<open>Lines 170782 to 170885.\<close>

definition ts_parse_row_1034 :: parse_row where
  "ts_parse_row_1034 =
    [(sym_ERR_assign_func_call, 7530), (sym_ERR_unexpected_this_in_path, 2372),
     (sym_ERR_unexpected_super_in_path, 2372), (sym_ERR_var_access_not_allowed, 3196),
     (sym_ERR_var_config_not_allowed, 3196), (sym_ERR_var_external_not_allowed, 3196),
     (sym_ERR_var_global_not_allowed, 3196), (sym_ERR_method_decl_in_body, 3150),
     (sym_extern_pragma, 7490), (sym_wasm_pragma, 3150), (sym_warn_pragma, 7490),
     (sym_allow_pragma, 3140), (sym_test_pragma, 7490), (sym_once_pragma, 7490),
     (sym_must_call_pragma, 7490), (sym_export_pragma, 7490), (sym_pou_pragma, 7194),
     (sym_direct_variable, 7675), (sym_deref_expression, 2373), (sym_variable, 7599),
     (sym_var_access, 2373), (sym_input_decls, 3196), (sym_output_decls, 3196),
     (sym_in_out_decls, 3196), (sym_var_decls, 3196), (sym_temp_var_decls, 3196),
     (sym_external_var_decls, 3197), (sym_global_var_decls, 2947), (sym_func_body, 8842),
     (sym_method_decl, 3159), (sym__method_decl_variables, 2368), (sym_prog_access_decls, 3043),
     (sym_config_init, 3047), (sym_variable_access, 7530), (sym_func_call, 2961),
     (sym_stmt_list, 8165), (sym__stmt, 2024), (sym_assign, 3150), (sym_if_stmt, 3150),
     (sym_case_stmt, 3150), (sym_for_stmt, 3150), (sym_while_stmt, 3150), (sym_repeat_stmt, 3150),
     (sym_raise_stmt, 3150), (sym_try_stmt, 3150), (sym_ERR_clause_outside_try, 3150),
     (sym_begin_path_expression, 2943), (sym_invocation, 2934), (sym_any_invocation, 2935),
     (sym_this_invocation, 2641), (sym_super_invocation, 2641), (sym_super_body_invocation, 2935),
     (sym_path_expression, 2627), (sym_field_expression, 2373), (sym_index_expression, 2373),
     (sym_ladder_diagram, 8165), (sym_fb_diagram, 8165), (aux_sym_func_decl_repeat1, 7194),
     (aux_sym_method_decl_repeat1, 2368), (aux_sym_stmt_list_repeat1, 2024),
     (aux_sym_ladder_diagram_repeat1, 7628), (aux_sym_fb_diagram_repeat1, 7633),
     (sym_identifier, 298), (aux_sym_ERR_unexpected_this_in_path_token1, 304),
     (aux_sym_ERR_unexpected_super_in_path_token1, 306), (sym_line_comment, 3),
     (anon_sym_LBRACE, 308), (aux_sym_test_pragma_token1, 9), (aux_sym_once_pragma_token1, 11),
     (aux_sym_must_call_pragma_token1, 13), (aux_sym_export_pragma_token1, 15),
     (anon_sym_SEMI, 310), (anon_sym_PERCENT, 312), (aux_sym_input_decls_token1, 2094),
     (aux_sym_output_decls_token1, 2096), (aux_sym_in_out_decls_token1, 318),
     (aux_sym_var_decls_token1, 2098), (aux_sym_temp_var_decls_token1, 322),
     (aux_sym_external_var_decls_token1, 324), (aux_sym_global_var_decls_token1, 326),
     (aux_sym_method_decl_token1, 330), (aux_sym_method_decl_token3, 2528),
     (aux_sym_prog_access_decls_token1, 332), (aux_sym_config_init_token1, 336),
     (aux_sym__stmt_token1, 340), (aux_sym__stmt_token2, 340), (aux_sym__stmt_token3, 340),
     (aux_sym_if_stmt_token1, 342), (aux_sym_case_stmt_token1, 344), (aux_sym_for_stmt_token1, 346),
     (aux_sym_while_stmt_token1, 348), (aux_sym_repeat_stmt_token1, 350),
     (aux_sym_raise_stmt_token1, 352), (aux_sym_try_stmt_token1, 354),
     (aux_sym_try_stmt_token2, 356), (aux_sym_catch_clause_token1, 356),
     (aux_sym_finally_clause_token1, 356), (sym_ld_rung, 2102), (sym_fbd_network, 2104),
     (sym_c_style_comment, 3), (sym_pascal_style_comment, 3), (sym_pragma, 3)]"

lemma ts_parse_row_1034_scan: "row_scan tokens_63_2 0 ts_parse_row_1034 = Some (Suc (Suc (Suc (Suc 0))))"
  unfolding ts_parse_row_1034_def by simp

text \<open>Lines 170886 to 170989.\<close>

definition ts_parse_row_1035 :: parse_row where
  "ts_parse_row_1035 =
    [(sym_ERR_assign_func_call, 7530), (sym_ERR_unexpected_this_in_path, 2372),
     (sym_ERR_unexpected_super_in_path, 2372), (sym_ERR_var_access_not_allowed, 3196),
     (sym_ERR_var_config_not_allowed, 3196), (sym_ERR_var_external_not_allowed, 3196),
     (sym_ERR_var_global_not_allowed, 3196), (sym_ERR_method_decl_in_body, 3150),
     (sym_extern_pragma, 7490), (sym_wasm_pragma, 3150), (sym_warn_pragma, 7490),
     (sym_allow_pragma, 3140), (sym_test_pragma, 7490), (sym_once_pragma, 7490),
     (sym_must_call_pragma, 7490), (sym_export_pragma, 7490), (sym_pou_pragma, 7194),
     (sym_direct_variable, 7675), (sym_deref_expression, 2373), (sym_variable, 7599),
     (sym_var_access, 2373), (sym_input_decls, 3196), (sym_output_decls, 3196),
     (sym_in_out_decls, 3196), (sym_var_decls, 3196), (sym_temp_var_decls, 3196),
     (sym_external_var_decls, 3197), (sym_global_var_decls, 2947), (sym_func_body, 8858),
     (sym_method_decl, 3159), (sym__method_decl_variables, 2368), (sym_prog_access_decls, 3043),
     (sym_config_init, 3047), (sym_variable_access, 7530), (sym_func_call, 2961),
     (sym_stmt_list, 8165), (sym__stmt, 2024), (sym_assign, 3150), (sym_if_stmt, 3150),
     (sym_case_stmt, 3150), (sym_for_stmt, 3150), (sym_while_stmt, 3150), (sym_repeat_stmt, 3150),
     (sym_raise_stmt, 3150), (sym_try_stmt, 3150), (sym_ERR_clause_outside_try, 3150),
     (sym_begin_path_expression, 2943), (sym_invocation, 2934), (sym_any_invocation, 2935),
     (sym_this_invocation, 2641), (sym_super_invocation, 2641), (sym_super_body_invocation, 2935),
     (sym_path_expression, 2627), (sym_field_expression, 2373), (sym_index_expression, 2373),
     (sym_ladder_diagram, 8165), (sym_fb_diagram, 8165), (aux_sym_func_decl_repeat1, 7194),
     (aux_sym_method_decl_repeat1, 2368), (aux_sym_stmt_list_repeat1, 2024),
     (aux_sym_ladder_diagram_repeat1, 7628), (aux_sym_fb_diagram_repeat1, 7633),
     (sym_identifier, 298), (aux_sym_ERR_unexpected_this_in_path_token1, 304),
     (aux_sym_ERR_unexpected_super_in_path_token1, 306), (sym_line_comment, 3),
     (anon_sym_LBRACE, 308), (aux_sym_test_pragma_token1, 9), (aux_sym_once_pragma_token1, 11),
     (aux_sym_must_call_pragma_token1, 13), (aux_sym_export_pragma_token1, 15),
     (anon_sym_SEMI, 310), (anon_sym_PERCENT, 312), (aux_sym_input_decls_token1, 2094),
     (aux_sym_output_decls_token1, 2096), (aux_sym_in_out_decls_token1, 318),
     (aux_sym_var_decls_token1, 2098), (aux_sym_temp_var_decls_token1, 322),
     (aux_sym_external_var_decls_token1, 324), (aux_sym_global_var_decls_token1, 326),
     (aux_sym_method_decl_token1, 330), (aux_sym_method_decl_token3, 2530),
     (aux_sym_prog_access_decls_token1, 332), (aux_sym_config_init_token1, 336),
     (aux_sym__stmt_token1, 340), (aux_sym__stmt_token2, 340), (aux_sym__stmt_token3, 340),
     (aux_sym_if_stmt_token1, 342), (aux_sym_case_stmt_token1, 344), (aux_sym_for_stmt_token1, 346),
     (aux_sym_while_stmt_token1, 348), (aux_sym_repeat_stmt_token1, 350),
     (aux_sym_raise_stmt_token1, 352), (aux_sym_try_stmt_token1, 354),
     (aux_sym_try_stmt_token2, 356), (aux_sym_catch_clause_token1, 356),
     (aux_sym_finally_clause_token1, 356), (sym_ld_rung, 2102), (sym_fbd_network, 2104),
     (sym_c_style_comment, 3), (sym_pascal_style_comment, 3), (sym_pragma, 3)]"

lemma ts_parse_row_1035_scan: "row_scan tokens_63_2 0 ts_parse_row_1035 = Some (Suc (Suc (Suc (Suc 0))))"
  unfolding ts_parse_row_1035_def by simp

text \<open>Lines 170990 to 171093.\<close>

definition ts_parse_row_1036 :: parse_row where
  "ts_parse_row_1036 =
    [(sym_ERR_assign_func_call, 7530), (sym_ERR_unexpected_this_in_path, 2372),
     (sym_ERR_unexpected_super_in_path, 2372), (sym_ERR_var_access_not_allowed, 3196),
     (sym_ERR_var_config_not_allowed, 3196), (sym_ERR_var_external_not_allowed, 3196),
     (sym_ERR_var_global_not_allowed, 3196), (sym_ERR_method_decl_in_body, 3150),
     (sym_extern_pragma, 7490), (sym_wasm_pragma, 3150), (sym_warn_pragma, 7490),
     (sym_allow_pragma, 3140), (sym_test_pragma, 7490), (sym_once_pragma, 7490),
     (sym_must_call_pragma, 7490), (sym_export_pragma, 7490), (sym_pou_pragma, 7194),
     (sym_direct_variable, 7675), (sym_deref_expression, 2373), (sym_variable, 7599),
     (sym_var_access, 2373), (sym_input_decls, 3196), (sym_output_decls, 3196),
     (sym_in_out_decls, 3196), (sym_var_decls, 3196), (sym_temp_var_decls, 3196),
     (sym_external_var_decls, 3197), (sym_global_var_decls, 2947), (sym_func_body, 8874),
     (sym_method_decl, 3159), (sym__method_decl_variables, 956), (sym_prog_access_decls, 3043),
     (sym_config_init, 3047), (sym_variable_access, 7530), (sym_func_call, 2961),
     (sym_stmt_list, 8165), (sym__stmt, 2024), (sym_assign, 3150), (sym_if_stmt, 3150),
     (sym_case_stmt, 3150), (sym_for_stmt, 3150), (sym_while_stmt, 3150), (sym_repeat_stmt, 3150),
     (sym_raise_stmt, 3150), (sym_try_stmt, 3150), (sym_ERR_clause_outside_try, 3150),
     (sym_begin_path_expression, 2943), (sym_invocation, 2934), (sym_any_invocation, 2935),
     (sym_this_invocation, 2641), (sym_super_invocation, 2641), (sym_super_body_invocation, 2935),
     (sym_path_expression, 2627), (sym_field_expression, 2373), (sym_index_expression, 2373),
     (sym_ladder_diagram, 8165), (sym_fb_diagram, 8165), (aux_sym_func_decl_repeat1, 7194),
     (aux_sym_method_decl_repeat1, 956), (aux_sym_stmt_list_repeat1, 2024),
     (aux_sym_ladder_diagram_repeat1, 7628), (aux_sym_fb_diagram_repeat1, 7633),
     (sym_identifier, 298), (aux_sym_ERR_unexpected_this_in_path_token1, 304),
     (aux_sym_ERR_unexpected_super_in_path_token1, 306), (sym_line_comment, 3),
     (anon_sym_LBRACE, 308), (aux_sym_test_pragma_token1, 9), (aux_sym_once_pragma_token1, 11),
     (aux_sym_must_call_pragma_token1, 13), (aux_sym_export_pragma_token1, 15),
     (anon_sym_SEMI, 310), (anon_sym_PERCENT, 312), (aux_sym_input_decls_token1, 2094),
     (aux_sym_output_decls_token1, 2096), (aux_sym_in_out_decls_token1, 318),
     (aux_sym_var_decls_token1, 2098), (aux_sym_temp_var_decls_token1, 322),
     (aux_sym_external_var_decls_token1, 324), (aux_sym_global_var_decls_token1, 326),
     (aux_sym_method_decl_token1, 330), (aux_sym_method_decl_token3, 2532),
     (aux_sym_prog_access_decls_token1, 332), (aux_sym_config_init_token1, 336),
     (aux_sym__stmt_token1, 340), (aux_sym__stmt_token2, 340), (aux_sym__stmt_token3, 340),
     (aux_sym_if_stmt_token1, 342), (aux_sym_case_stmt_token1, 344), (aux_sym_for_stmt_token1, 346),
     (aux_sym_while_stmt_token1, 348), (aux_sym_repeat_stmt_token1, 350),
     (aux_sym_raise_stmt_token1, 352), (aux_sym_try_stmt_token1, 354),
     (aux_sym_try_stmt_token2, 356), (aux_sym_catch_clause_token1, 356),
     (aux_sym_finally_clause_token1, 356), (sym_ld_rung, 2102), (sym_fbd_network, 2104),
     (sym_c_style_comment, 3), (sym_pascal_style_comment, 3), (sym_pragma, 3)]"

lemma ts_parse_row_1036_scan: "row_scan tokens_63_2 0 ts_parse_row_1036 = Some (Suc (Suc (Suc (Suc 0))))"
  unfolding ts_parse_row_1036_def by simp

text \<open>Lines 171094 to 171197.\<close>

definition ts_parse_row_1037 :: parse_row where
  "ts_parse_row_1037 =
    [(sym_ERR_assign_func_call, 7530), (sym_ERR_unexpected_this_in_path, 2372),
     (sym_ERR_unexpected_super_in_path, 2372), (sym_ERR_var_access_not_allowed, 3196),
     (sym_ERR_var_config_not_allowed, 3196), (sym_ERR_var_external_not_allowed, 3196),
     (sym_ERR_var_global_not_allowed, 3196), (sym_ERR_method_decl_in_body, 3150),
     (sym_extern_pragma, 7490), (sym_wasm_pragma, 3150), (sym_warn_pragma, 7490),
     (sym_allow_pragma, 3140), (sym_test_pragma, 7490), (sym_once_pragma, 7490),
     (sym_must_call_pragma, 7490), (sym_export_pragma, 7490), (sym_pou_pragma, 7194),
     (sym_direct_variable, 7675), (sym_deref_expression, 2373), (sym_variable, 7599),
     (sym_var_access, 2373), (sym_input_decls, 3196), (sym_output_decls, 3196),
     (sym_in_out_decls, 3196), (sym_var_decls, 3196), (sym_temp_var_decls, 3196),
     (sym_external_var_decls, 3197), (sym_global_var_decls, 2947), (sym_func_body, 10315),
     (sym_method_decl, 3159), (sym__method_decl_variables, 2368), (sym_prog_access_decls, 3043),
     (sym_config_init, 3047), (sym_variable_access, 7530), (sym_func_call, 2961),
     (sym_stmt_list, 8165), (sym__stmt, 2024), (sym_assign, 3150), (sym_if_stmt, 3150),
     (sym_case_stmt, 3150), (sym_for_stmt, 3150), (sym_while_stmt, 3150), (sym_repeat_stmt, 3150),
     (sym_raise_stmt, 3150), (sym_try_stmt, 3150), (sym_ERR_clause_outside_try, 3150),
     (sym_begin_path_expression, 2943), (sym_invocation, 2934), (sym_any_invocation, 2935),
     (sym_this_invocation, 2641), (sym_super_invocation, 2641), (sym_super_body_invocation, 2935),
     (sym_path_expression, 2627), (sym_field_expression, 2373), (sym_index_expression, 2373),
     (sym_ladder_diagram, 8165), (sym_fb_diagram, 8165), (aux_sym_func_decl_repeat1, 7194),
     (aux_sym_method_decl_repeat1, 2368), (aux_sym_stmt_list_repeat1, 2024),
     (aux_sym_ladder_diagram_repeat1, 7628), (aux_sym_fb_diagram_repeat1, 7633),
     (sym_identifier, 298), (aux_sym_ERR_unexpected_this_in_path_token1, 304),
     (aux_sym_ERR_unexpected_super_in_path_token1, 306), (sym_line_comment, 3),
     (anon_sym_LBRACE, 308), (aux_sym_test_pragma_token1, 9), (aux_sym_once_pragma_token1, 11),
     (aux_sym_must_call_pragma_token1, 13), (aux_sym_export_pragma_token1, 15),
     (anon_sym_SEMI, 310), (anon_sym_PERCENT, 312), (aux_sym_input_decls_token1, 2094),
     (aux_sym_output_decls_token1, 2096), (aux_sym_in_out_decls_token1, 318),
     (aux_sym_var_decls_token1, 2098), (aux_sym_temp_var_decls_token1, 322),
     (aux_sym_external_var_decls_token1, 324), (aux_sym_global_var_decls_token1, 326),
     (aux_sym_method_decl_token1, 330), (aux_sym_method_decl_token3, 2534),
     (aux_sym_prog_access_decls_token1, 332), (aux_sym_config_init_token1, 336),
     (aux_sym__stmt_token1, 340), (aux_sym__stmt_token2, 340), (aux_sym__stmt_token3, 340),
     (aux_sym_if_stmt_token1, 342), (aux_sym_case_stmt_token1, 344), (aux_sym_for_stmt_token1, 346),
     (aux_sym_while_stmt_token1, 348), (aux_sym_repeat_stmt_token1, 350),
     (aux_sym_raise_stmt_token1, 352), (aux_sym_try_stmt_token1, 354),
     (aux_sym_try_stmt_token2, 356), (aux_sym_catch_clause_token1, 356),
     (aux_sym_finally_clause_token1, 356), (sym_ld_rung, 2102), (sym_fbd_network, 2104),
     (sym_c_style_comment, 3), (sym_pascal_style_comment, 3), (sym_pragma, 3)]"

lemma ts_parse_row_1037_scan: "row_scan tokens_63_2 0 ts_parse_row_1037 = Some (Suc (Suc (Suc (Suc 0))))"
  unfolding ts_parse_row_1037_def by simp

text \<open>Lines 171198 to 171301.\<close>

definition ts_parse_row_1038 :: parse_row where
  "ts_parse_row_1038 =
    [(sym_ERR_assign_func_call, 7530), (sym_ERR_unexpected_this_in_path, 2372),
     (sym_ERR_unexpected_super_in_path, 2372), (sym_ERR_var_access_not_allowed, 3196),
     (sym_ERR_var_config_not_allowed, 3196), (sym_ERR_var_external_not_allowed, 3196),
     (sym_ERR_var_global_not_allowed, 3196), (sym_ERR_method_decl_in_body, 3150),
     (sym_extern_pragma, 7490), (sym_wasm_pragma, 3150), (sym_warn_pragma, 7490),
     (sym_allow_pragma, 3140), (sym_test_pragma, 7490), (sym_once_pragma, 7490),
     (sym_must_call_pragma, 7490), (sym_export_pragma, 7490), (sym_pou_pragma, 7194),
     (sym_direct_variable, 7675), (sym_deref_expression, 2373), (sym_variable, 7599),
     (sym_var_access, 2373), (sym_input_decls, 3196), (sym_output_decls, 3196),
     (sym_in_out_decls, 3196), (sym_var_decls, 3196), (sym_temp_var_decls, 3196),
     (sym_external_var_decls, 3197), (sym_global_var_decls, 2947), (sym_func_body, 10020),
     (sym_method_decl, 3159), (sym__method_decl_variables, 968), (sym_prog_access_decls, 3043),
     (sym_config_init, 3047), (sym_variable_access, 7530), (sym_func_call, 2961),
     (sym_stmt_list, 8165), (sym__stmt, 2024), (sym_assign, 3150), (sym_if_stmt, 3150),
     (sym_case_stmt, 3150), (sym_for_stmt, 3150), (sym_while_stmt, 3150), (sym_repeat_stmt, 3150),
     (sym_raise_stmt, 3150), (sym_try_stmt, 3150), (sym_ERR_clause_outside_try, 3150),
     (sym_begin_path_expression, 2943), (sym_invocation, 2934), (sym_any_invocation, 2935),
     (sym_this_invocation, 2641), (sym_super_invocation, 2641), (sym_super_body_invocation, 2935),
     (sym_path_expression, 2627), (sym_field_expression, 2373), (sym_index_expression, 2373),
     (sym_ladder_diagram, 8165), (sym_fb_diagram, 8165), (aux_sym_func_decl_repeat1, 7194),
     (aux_sym_method_decl_repeat1, 968), (aux_sym_stmt_list_repeat1, 2024),
     (aux_sym_ladder_diagram_repeat1, 7628), (aux_sym_fb_diagram_repeat1, 7633),
     (sym_identifier, 298), (aux_sym_ERR_unexpected_this_in_path_token1, 304),
     (aux_sym_ERR_unexpected_super_in_path_token1, 306), (sym_line_comment, 3),
     (anon_sym_LBRACE, 308), (aux_sym_test_pragma_token1, 9), (aux_sym_once_pragma_token1, 11),
     (aux_sym_must_call_pragma_token1, 13), (aux_sym_export_pragma_token1, 15),
     (anon_sym_SEMI, 310), (anon_sym_PERCENT, 312), (aux_sym_input_decls_token1, 2094),
     (aux_sym_output_decls_token1, 2096), (aux_sym_in_out_decls_token1, 318),
     (aux_sym_var_decls_token1, 2098), (aux_sym_temp_var_decls_token1, 322),
     (aux_sym_external_var_decls_token1, 324), (aux_sym_global_var_decls_token1, 326),
     (aux_sym_method_decl_token1, 330), (aux_sym_method_decl_token3, 2536),
     (aux_sym_prog_access_decls_token1, 332), (aux_sym_config_init_token1, 336),
     (aux_sym__stmt_token1, 340), (aux_sym__stmt_token2, 340), (aux_sym__stmt_token3, 340),
     (aux_sym_if_stmt_token1, 342), (aux_sym_case_stmt_token1, 344), (aux_sym_for_stmt_token1, 346),
     (aux_sym_while_stmt_token1, 348), (aux_sym_repeat_stmt_token1, 350),
     (aux_sym_raise_stmt_token1, 352), (aux_sym_try_stmt_token1, 354),
     (aux_sym_try_stmt_token2, 356), (aux_sym_catch_clause_token1, 356),
     (aux_sym_finally_clause_token1, 356), (sym_ld_rung, 2102), (sym_fbd_network, 2104),
     (sym_c_style_comment, 3), (sym_pascal_style_comment, 3), (sym_pragma, 3)]"

lemma ts_parse_row_1038_scan: "row_scan tokens_63_2 0 ts_parse_row_1038 = Some (Suc (Suc (Suc (Suc 0))))"
  unfolding ts_parse_row_1038_def by simp

text \<open>Lines 171302 to 171405.\<close>

definition ts_parse_row_1039 :: parse_row where
  "ts_parse_row_1039 =
    [(sym_ERR_assign_func_call, 7530), (sym_ERR_unexpected_this_in_path, 2372),
     (sym_ERR_unexpected_super_in_path, 2372), (sym_ERR_var_access_not_allowed, 3196),
     (sym_ERR_var_config_not_allowed, 3196), (sym_ERR_var_external_not_allowed, 3196),
     (sym_ERR_var_global_not_allowed, 3196), (sym_ERR_method_decl_in_body, 3150),
     (sym_extern_pragma, 7490), (sym_wasm_pragma, 3150), (sym_warn_pragma, 7490),
     (sym_allow_pragma, 3140), (sym_test_pragma, 7490), (sym_once_pragma, 7490),
     (sym_must_call_pragma, 7490), (sym_export_pragma, 7490), (sym_pou_pragma, 7194),
     (sym_direct_variable, 7675), (sym_deref_expression, 2373), (sym_variable, 7599),
     (sym_var_access, 2373), (sym_input_decls, 3196), (sym_output_decls, 3196),
     (sym_in_out_decls, 3196), (sym_var_decls, 3196), (sym_temp_var_decls, 3196),
     (sym_external_var_decls, 3197), (sym_global_var_decls, 2947), (sym_func_body, 10028),
     (sym_method_decl, 3159), (sym__method_decl_variables, 970), (sym_prog_access_decls, 3043),
     (sym_config_init, 3047), (sym_variable_access, 7530), (sym_func_call, 2961),
     (sym_stmt_list, 8165), (sym__stmt, 2024), (sym_assign, 3150), (sym_if_stmt, 3150),
     (sym_case_stmt, 3150), (sym_for_stmt, 3150), (sym_while_stmt, 3150), (sym_repeat_stmt, 3150),
     (sym_raise_stmt, 3150), (sym_try_stmt, 3150), (sym_ERR_clause_outside_try, 3150),
     (sym_begin_path_expression, 2943), (sym_invocation, 2934), (sym_any_invocation, 2935),
     (sym_this_invocation, 2641), (sym_super_invocation, 2641), (sym_super_body_invocation, 2935),
     (sym_path_expression, 2627), (sym_field_expression, 2373), (sym_index_expression, 2373),
     (sym_ladder_diagram, 8165), (sym_fb_diagram, 8165), (aux_sym_func_decl_repeat1, 7194),
     (aux_sym_method_decl_repeat1, 970), (aux_sym_stmt_list_repeat1, 2024),
     (aux_sym_ladder_diagram_repeat1, 7628), (aux_sym_fb_diagram_repeat1, 7633),
     (sym_identifier, 298), (aux_sym_ERR_unexpected_this_in_path_token1, 304),
     (aux_sym_ERR_unexpected_super_in_path_token1, 306), (sym_line_comment, 3),
     (anon_sym_LBRACE, 308), (aux_sym_test_pragma_token1, 9), (aux_sym_once_pragma_token1, 11),
     (aux_sym_must_call_pragma_token1, 13), (aux_sym_export_pragma_token1, 15),
     (anon_sym_SEMI, 310), (anon_sym_PERCENT, 312), (aux_sym_input_decls_token1, 2094),
     (aux_sym_output_decls_token1, 2096), (aux_sym_in_out_decls_token1, 318),
     (aux_sym_var_decls_token1, 2098), (aux_sym_temp_var_decls_token1, 322),
     (aux_sym_external_var_decls_token1, 324), (aux_sym_global_var_decls_token1, 326),
     (aux_sym_method_decl_token1, 330), (aux_sym_method_decl_token3, 2538),
     (aux_sym_prog_access_decls_token1, 332), (aux_sym_config_init_token1, 336),
     (aux_sym__stmt_token1, 340), (aux_sym__stmt_token2, 340), (aux_sym__stmt_token3, 340),
     (aux_sym_if_stmt_token1, 342), (aux_sym_case_stmt_token1, 344), (aux_sym_for_stmt_token1, 346),
     (aux_sym_while_stmt_token1, 348), (aux_sym_repeat_stmt_token1, 350),
     (aux_sym_raise_stmt_token1, 352), (aux_sym_try_stmt_token1, 354),
     (aux_sym_try_stmt_token2, 356), (aux_sym_catch_clause_token1, 356),
     (aux_sym_finally_clause_token1, 356), (sym_ld_rung, 2102), (sym_fbd_network, 2104),
     (sym_c_style_comment, 3), (sym_pascal_style_comment, 3), (sym_pragma, 3)]"

lemma ts_parse_row_1039_scan: "row_scan tokens_63_2 0 ts_parse_row_1039 = Some (Suc (Suc (Suc (Suc 0))))"
  unfolding ts_parse_row_1039_def by simp

text \<open>Lines 171406 to 171509.\<close>

definition ts_parse_row_1040 :: parse_row where
  "ts_parse_row_1040 =
    [(sym_ERR_assign_func_call, 7530), (sym_ERR_unexpected_this_in_path, 2372),
     (sym_ERR_unexpected_super_in_path, 2372), (sym_ERR_var_access_not_allowed, 3196),
     (sym_ERR_var_config_not_allowed, 3196), (sym_ERR_var_external_not_allowed, 3196),
     (sym_ERR_var_global_not_allowed, 3196), (sym_ERR_method_decl_in_body, 3150),
     (sym_extern_pragma, 7490), (sym_wasm_pragma, 3150), (sym_warn_pragma, 7490),
     (sym_allow_pragma, 3140), (sym_test_pragma, 7490), (sym_once_pragma, 7490),
     (sym_must_call_pragma, 7490), (sym_export_pragma, 7490), (sym_pou_pragma, 7194),
     (sym_direct_variable, 7675), (sym_deref_expression, 2373), (sym_variable, 7599),
     (sym_var_access, 2373), (sym_input_decls, 3196), (sym_output_decls, 3196),
     (sym_in_out_decls, 3196), (sym_var_decls, 3196), (sym_temp_var_decls, 3196),
     (sym_external_var_decls, 3197), (sym_global_var_decls, 2947), (sym_func_body, 8921),
     (sym_method_decl, 3159), (sym__method_decl_variables, 2368), (sym_prog_access_decls, 3043),
     (sym_config_init, 3047), (sym_variable_access, 7530), (sym_func_call, 2961),
     (sym_stmt_list, 8165), (sym__stmt, 2024), (sym_assign, 3150), (sym_if_stmt, 3150),
     (sym_case_stmt, 3150), (sym_for_stmt, 3150), (sym_while_stmt, 3150), (sym_repeat_stmt, 3150),
     (sym_raise_stmt, 3150), (sym_try_stmt, 3150), (sym_ERR_clause_outside_try, 3150),
     (sym_begin_path_expression, 2943), (sym_invocation, 2934), (sym_any_invocation, 2935),
     (sym_this_invocation, 2641), (sym_super_invocation, 2641), (sym_super_body_invocation, 2935),
     (sym_path_expression, 2627), (sym_field_expression, 2373), (sym_index_expression, 2373),
     (sym_ladder_diagram, 8165), (sym_fb_diagram, 8165), (aux_sym_func_decl_repeat1, 7194),
     (aux_sym_method_decl_repeat1, 2368), (aux_sym_stmt_list_repeat1, 2024),
     (aux_sym_ladder_diagram_repeat1, 7628), (aux_sym_fb_diagram_repeat1, 7633),
     (sym_identifier, 298), (aux_sym_ERR_unexpected_this_in_path_token1, 304),
     (aux_sym_ERR_unexpected_super_in_path_token1, 306), (sym_line_comment, 3),
     (anon_sym_LBRACE, 308), (aux_sym_test_pragma_token1, 9), (aux_sym_once_pragma_token1, 11),
     (aux_sym_must_call_pragma_token1, 13), (aux_sym_export_pragma_token1, 15),
     (anon_sym_SEMI, 310), (anon_sym_PERCENT, 312), (aux_sym_input_decls_token1, 2094),
     (aux_sym_output_decls_token1, 2096), (aux_sym_in_out_decls_token1, 318),
     (aux_sym_var_decls_token1, 2098), (aux_sym_temp_var_decls_token1, 322),
     (aux_sym_external_var_decls_token1, 324), (aux_sym_global_var_decls_token1, 326),
     (aux_sym_method_decl_token1, 330), (aux_sym_method_decl_token3, 2540),
     (aux_sym_prog_access_decls_token1, 332), (aux_sym_config_init_token1, 336),
     (aux_sym__stmt_token1, 340), (aux_sym__stmt_token2, 340), (aux_sym__stmt_token3, 340),
     (aux_sym_if_stmt_token1, 342), (aux_sym_case_stmt_token1, 344), (aux_sym_for_stmt_token1, 346),
     (aux_sym_while_stmt_token1, 348), (aux_sym_repeat_stmt_token1, 350),
     (aux_sym_raise_stmt_token1, 352), (aux_sym_try_stmt_token1, 354),
     (aux_sym_try_stmt_token2, 356), (aux_sym_catch_clause_token1, 356),
     (aux_sym_finally_clause_token1, 356), (sym_ld_rung, 2102), (sym_fbd_network, 2104),
     (sym_c_style_comment, 3), (sym_pascal_style_comment, 3), (sym_pragma, 3)]"

lemma ts_parse_row_1040_scan: "row_scan tokens_63_2 0 ts_parse_row_1040 = Some (Suc (Suc (Suc (Suc 0))))"
  unfolding ts_parse_row_1040_def by simp

text \<open>Lines 171510 to 171613.\<close>

definition ts_parse_row_1041 :: parse_row where
  "ts_parse_row_1041 =
    [(sym_ERR_assign_func_call, 7530), (sym_ERR_unexpected_this_in_path, 2372),
     (sym_ERR_unexpected_super_in_path, 2372), (sym_ERR_var_access_not_allowed, 3196),
     (sym_ERR_var_config_not_allowed, 3196), (sym_ERR_var_external_not_allowed, 3196),
     (sym_ERR_var_global_not_allowed, 3196), (sym_ERR_method_decl_in_body, 3150),
     (sym_extern_pragma, 7490), (sym_wasm_pragma, 3150), (sym_warn_pragma, 7490),
     (sym_allow_pragma, 3140), (sym_test_pragma, 7490), (sym_once_pragma, 7490),
     (sym_must_call_pragma, 7490), (sym_export_pragma, 7490), (sym_pou_pragma, 7194),
     (sym_direct_variable, 7675), (sym_deref_expression, 2373), (sym_variable, 7599),
     (sym_var_access, 2373), (sym_input_decls, 3196), (sym_output_decls, 3196),
     (sym_in_out_decls, 3196), (sym_var_decls, 3196), (sym_temp_var_decls, 3196),
     (sym_external_var_decls, 3197), (sym_global_var_decls, 2947), (sym_func_body, 10332),
     (sym_method_decl, 3159), (sym__method_decl_variables, 2368), (sym_prog_access_decls, 3043),
     (sym_config_init, 3047), (sym_variable_access, 7530), (sym_func_call, 2961),
     (sym_stmt_list, 8165), (sym__stmt, 2024), (sym_assign, 3150), (sym_if_stmt, 3150),
     (sym_case_stmt, 3150), (sym_for_stmt, 3150), (sym_while_stmt, 3150), (sym_repeat_stmt, 3150),
     (sym_raise_stmt, 3150), (sym_try_stmt, 3150), (sym_ERR_clause_outside_try, 3150),
     (sym_begin_path_expression, 2943), (sym_invocation, 2934), (sym_any_invocation, 2935),
     (sym_this_invocation, 2641), (sym_super_invocation, 2641), (sym_super_body_invocation, 2935),
     (sym_path_expression, 2627), (sym_field_expression, 2373), (sym_index_expression, 2373),
     (sym_ladder_diagram, 8165), (sym_fb_diagram, 8165), (aux_sym_func_decl_repeat1, 7194),
     (aux_sym_method_decl_repeat1, 2368), (aux_sym_stmt_list_repeat1, 2024),
     (aux_sym_ladder_diagram_repeat1, 7628), (aux_sym_fb_diagram_repeat1, 7633),
     (sym_identifier, 298), (aux_sym_ERR_unexpected_this_in_path_token1, 304),
     (aux_sym_ERR_unexpected_super_in_path_token1, 306), (sym_line_comment, 3),
     (anon_sym_LBRACE, 308), (aux_sym_test_pragma_token1, 9), (aux_sym_once_pragma_token1, 11),
     (aux_sym_must_call_pragma_token1, 13), (aux_sym_export_pragma_token1, 15),
     (anon_sym_SEMI, 310), (anon_sym_PERCENT, 312), (aux_sym_input_decls_token1, 2094),
     (aux_sym_output_decls_token1, 2096), (aux_sym_in_out_decls_token1, 318),
     (aux_sym_var_decls_token1, 2098), (aux_sym_temp_var_decls_token1, 322),
     (aux_sym_external_var_decls_token1, 324), (aux_sym_global_var_decls_token1, 326),
     (aux_sym_method_decl_token1, 330), (aux_sym_method_decl_token3, 2542),
     (aux_sym_prog_access_decls_token1, 332), (aux_sym_config_init_token1, 336),
     (aux_sym__stmt_token1, 340), (aux_sym__stmt_token2, 340), (aux_sym__stmt_token3, 340),
     (aux_sym_if_stmt_token1, 342), (aux_sym_case_stmt_token1, 344), (aux_sym_for_stmt_token1, 346),
     (aux_sym_while_stmt_token1, 348), (aux_sym_repeat_stmt_token1, 350),
     (aux_sym_raise_stmt_token1, 352), (aux_sym_try_stmt_token1, 354),
     (aux_sym_try_stmt_token2, 356), (aux_sym_catch_clause_token1, 356),
     (aux_sym_finally_clause_token1, 356), (sym_ld_rung, 2102), (sym_fbd_network, 2104),
     (sym_c_style_comment, 3), (sym_pascal_style_comment, 3), (sym_pragma, 3)]"

lemma ts_parse_row_1041_scan: "row_scan tokens_63_2 0 ts_parse_row_1041 = Some (Suc (Suc (Suc (Suc 0))))"
  unfolding ts_parse_row_1041_def by simp

text \<open>Lines 171614 to 171717.\<close>

definition ts_parse_row_1042 :: parse_row where
  "ts_parse_row_1042 =
    [(sym_ERR_assign_func_call, 7530), (sym_ERR_unexpected_this_in_path, 2372),
     (sym_ERR_unexpected_super_in_path, 2372), (sym_ERR_var_access_not_allowed, 3196),
     (sym_ERR_var_config_not_allowed, 3196), (sym_ERR_var_external_not_allowed, 3196),
     (sym_ERR_var_global_not_allowed, 3196), (sym_ERR_method_decl_in_body, 3150),
     (sym_extern_pragma, 7490), (sym_wasm_pragma, 3150), (sym_warn_pragma, 7490),
     (sym_allow_pragma, 3140), (sym_test_pragma, 7490), (sym_once_pragma, 7490),
     (sym_must_call_pragma, 7490), (sym_export_pragma, 7490), (sym_pou_pragma, 7194),
     (sym_direct_variable, 7675), (sym_deref_expression, 2373), (sym_variable, 7599),
     (sym_var_access, 2373), (sym_input_decls, 3196), (sym_output_decls, 3196),
     (sym_in_out_decls, 3196), (sym_var_decls, 3196), (sym_temp_var_decls, 3196),
     (sym_external_var_decls, 3197), (sym_global_var_decls, 2947), (sym_func_body, 10334),
     (sym_method_decl, 3159), (sym__method_decl_variables, 2368), (sym_prog_access_decls, 3043),
     (sym_config_init, 3047), (sym_variable_access, 7530), (sym_func_call, 2961),
     (sym_stmt_list, 8165), (sym__stmt, 2024), (sym_assign, 3150), (sym_if_stmt, 3150),
     (sym_case_stmt, 3150), (sym_for_stmt, 3150), (sym_while_stmt, 3150), (sym_repeat_stmt, 3150),
     (sym_raise_stmt, 3150), (sym_try_stmt, 3150), (sym_ERR_clause_outside_try, 3150),
     (sym_begin_path_expression, 2943), (sym_invocation, 2934), (sym_any_invocation, 2935),
     (sym_this_invocation, 2641), (sym_super_invocation, 2641), (sym_super_body_invocation, 2935),
     (sym_path_expression, 2627), (sym_field_expression, 2373), (sym_index_expression, 2373),
     (sym_ladder_diagram, 8165), (sym_fb_diagram, 8165), (aux_sym_func_decl_repeat1, 7194),
     (aux_sym_method_decl_repeat1, 2368), (aux_sym_stmt_list_repeat1, 2024),
     (aux_sym_ladder_diagram_repeat1, 7628), (aux_sym_fb_diagram_repeat1, 7633),
     (sym_identifier, 298), (aux_sym_ERR_unexpected_this_in_path_token1, 304),
     (aux_sym_ERR_unexpected_super_in_path_token1, 306), (sym_line_comment, 3),
     (anon_sym_LBRACE, 308), (aux_sym_test_pragma_token1, 9), (aux_sym_once_pragma_token1, 11),
     (aux_sym_must_call_pragma_token1, 13), (aux_sym_export_pragma_token1, 15),
     (anon_sym_SEMI, 310), (anon_sym_PERCENT, 312), (aux_sym_input_decls_token1, 2094),
     (aux_sym_output_decls_token1, 2096), (aux_sym_in_out_decls_token1, 318),
     (aux_sym_var_decls_token1, 2098), (aux_sym_temp_var_decls_token1, 322),
     (aux_sym_external_var_decls_token1, 324), (aux_sym_global_var_decls_token1, 326),
     (aux_sym_method_decl_token1, 330), (aux_sym_method_decl_token3, 2544),
     (aux_sym_prog_access_decls_token1, 332), (aux_sym_config_init_token1, 336),
     (aux_sym__stmt_token1, 340), (aux_sym__stmt_token2, 340), (aux_sym__stmt_token3, 340),
     (aux_sym_if_stmt_token1, 342), (aux_sym_case_stmt_token1, 344), (aux_sym_for_stmt_token1, 346),
     (aux_sym_while_stmt_token1, 348), (aux_sym_repeat_stmt_token1, 350),
     (aux_sym_raise_stmt_token1, 352), (aux_sym_try_stmt_token1, 354),
     (aux_sym_try_stmt_token2, 356), (aux_sym_catch_clause_token1, 356),
     (aux_sym_finally_clause_token1, 356), (sym_ld_rung, 2102), (sym_fbd_network, 2104),
     (sym_c_style_comment, 3), (sym_pascal_style_comment, 3), (sym_pragma, 3)]"

lemma ts_parse_row_1042_scan: "row_scan tokens_63_2 0 ts_parse_row_1042 = Some (Suc (Suc (Suc (Suc 0))))"
  unfolding ts_parse_row_1042_def by simp

text \<open>Lines 171718 to 171821.\<close>

definition ts_parse_row_1043 :: parse_row where
  "ts_parse_row_1043 =
    [(sym_ERR_assign_func_call, 7530), (sym_ERR_unexpected_this_in_path, 2372),
     (sym_ERR_unexpected_super_in_path, 2372), (sym_ERR_var_access_not_allowed, 3196),
     (sym_ERR_var_config_not_allowed, 3196), (sym_ERR_var_external_not_allowed, 3196),
     (sym_ERR_var_global_not_allowed, 3196), (sym_ERR_method_decl_in_body, 3150),
     (sym_extern_pragma, 7490), (sym_wasm_pragma, 3150), (sym_warn_pragma, 7490),
     (sym_allow_pragma, 3140), (sym_test_pragma, 7490), (sym_once_pragma, 7490),
     (sym_must_call_pragma, 7490), (sym_export_pragma, 7490), (sym_pou_pragma, 7194),
     (sym_direct_variable, 7675), (sym_deref_expression, 2373), (sym_variable, 7599),
     (sym_var_access, 2373), (sym_input_decls, 3196), (sym_output_decls, 3196),
     (sym_in_out_decls, 3196), (sym_var_decls, 3196), (sym_temp_var_decls, 3196),
     (sym_external_var_decls, 3197), (sym_global_var_decls, 2947), (sym_func_body, 10335),
     (sym_method_decl, 3159), (sym__method_decl_variables, 1054), (sym_prog_access_decls, 3043),
     (sym_config_init, 3047), (sym_variable_access, 7530), (sym_func_call, 2961),
     (sym_stmt_list, 8165), (sym__stmt, 2024), (sym_assign, 3150), (sym_if_stmt, 3150),
     (sym_case_stmt, 3150), (sym_for_stmt, 3150), (sym_while_stmt, 3150), (sym_repeat_stmt, 3150),
     (sym_raise_stmt, 3150), (sym_try_stmt, 3150), (sym_ERR_clause_outside_try, 3150),
     (sym_begin_path_expression, 2943), (sym_invocation, 2934), (sym_any_invocation, 2935),
     (sym_this_invocation, 2641), (sym_super_invocation, 2641), (sym_super_body_invocation, 2935),
     (sym_path_expression, 2627), (sym_field_expression, 2373), (sym_index_expression, 2373),
     (sym_ladder_diagram, 8165), (sym_fb_diagram, 8165), (aux_sym_func_decl_repeat1, 7194),
     (aux_sym_method_decl_repeat1, 1054), (aux_sym_stmt_list_repeat1, 2024),
     (aux_sym_ladder_diagram_repeat1, 7628), (aux_sym_fb_diagram_repeat1, 7633),
     (sym_identifier, 298), (aux_sym_ERR_unexpected_this_in_path_token1, 304),
     (aux_sym_ERR_unexpected_super_in_path_token1, 306), (sym_line_comment, 3),
     (anon_sym_LBRACE, 308), (aux_sym_test_pragma_token1, 9), (aux_sym_once_pragma_token1, 11),
     (aux_sym_must_call_pragma_token1, 13), (aux_sym_export_pragma_token1, 15),
     (anon_sym_SEMI, 310), (anon_sym_PERCENT, 312), (aux_sym_input_decls_token1, 2094),
     (aux_sym_output_decls_token1, 2096), (aux_sym_in_out_decls_token1, 318),
     (aux_sym_var_decls_token1, 2098), (aux_sym_temp_var_decls_token1, 322),
     (aux_sym_external_var_decls_token1, 324), (aux_sym_global_var_decls_token1, 326),
     (aux_sym_method_decl_token1, 330), (aux_sym_method_decl_token3, 2546),
     (aux_sym_prog_access_decls_token1, 332), (aux_sym_config_init_token1, 336),
     (aux_sym__stmt_token1, 340), (aux_sym__stmt_token2, 340), (aux_sym__stmt_token3, 340),
     (aux_sym_if_stmt_token1, 342), (aux_sym_case_stmt_token1, 344), (aux_sym_for_stmt_token1, 346),
     (aux_sym_while_stmt_token1, 348), (aux_sym_repeat_stmt_token1, 350),
     (aux_sym_raise_stmt_token1, 352), (aux_sym_try_stmt_token1, 354),
     (aux_sym_try_stmt_token2, 356), (aux_sym_catch_clause_token1, 356),
     (aux_sym_finally_clause_token1, 356), (sym_ld_rung, 2102), (sym_fbd_network, 2104),
     (sym_c_style_comment, 3), (sym_pascal_style_comment, 3), (sym_pragma, 3)]"

lemma ts_parse_row_1043_scan: "row_scan tokens_63_2 0 ts_parse_row_1043 = Some (Suc (Suc (Suc (Suc 0))))"
  unfolding ts_parse_row_1043_def by simp

text \<open>Lines 171822 to 171925.\<close>

definition ts_parse_row_1044 :: parse_row where
  "ts_parse_row_1044 =
    [(sym_ERR_assign_func_call, 7530), (sym_ERR_unexpected_this_in_path, 2372),
     (sym_ERR_unexpected_super_in_path, 2372), (sym_ERR_var_access_not_allowed, 3266),
     (sym_ERR_var_config_not_allowed, 3266), (sym_ERR_var_external_not_allowed, 3266),
     (sym_ERR_var_global_not_allowed, 3266), (sym_ERR_method_decl_in_body, 3150),
     (sym_extern_pragma, 7490), (sym_wasm_pragma, 3150), (sym_warn_pragma, 7490),
     (sym_allow_pragma, 3140), (sym_test_pragma, 7490), (sym_once_pragma, 7490),
     (sym_must_call_pragma, 7490), (sym_export_pragma, 7490), (sym_pou_pragma, 7194),
     (sym_direct_variable, 7675), (sym_deref_expression, 2373), (sym_variable, 7599),
     (sym_var_access, 2373), (sym_input_decls, 3266), (sym_output_decls, 3266),
     (sym_in_out_decls, 3266), (sym_var_decls, 3266), (sym_temp_var_decls, 3266),
     (sym_external_var_decls, 3248), (sym_global_var_decls, 2947), (sym__func_variables, 2367),
     (sym_func_body, 9556), (sym_method_decl, 3159), (sym_prog_access_decls, 3043),
     (sym_config_init, 3047), (sym_variable_access, 7530), (sym_func_call, 2961),
     (sym_stmt_list, 8165), (sym__stmt, 2024), (sym_assign, 3150), (sym_if_stmt, 3150),
     (sym_case_stmt, 3150), (sym_for_stmt, 3150), (sym_while_stmt, 3150), (sym_repeat_stmt, 3150),
     (sym_raise_stmt, 3150), (sym_try_stmt, 3150), (sym_ERR_clause_outside_try, 3150),
     (sym_begin_path_expression, 2943), (sym_invocation, 2934), (sym_any_invocation, 2935),
     (sym_this_invocation, 2641), (sym_super_invocation, 2641), (sym_super_body_invocation, 2935),
     (sym_path_expression, 2627), (sym_field_expression, 2373), (sym_index_expression, 2373),
     (sym_ladder_diagram, 8165), (sym_fb_diagram, 8165), (aux_sym_func_decl_repeat1, 7194),
     (aux_sym_func_decl_repeat3, 2367), (aux_sym_stmt_list_repeat1, 2024),
     (aux_sym_ladder_diagram_repeat1, 7628), (aux_sym_fb_diagram_repeat1, 7633),
     (sym_identifier, 298), (aux_sym_ERR_unexpected_this_in_path_token1, 304),
     (aux_sym_ERR_unexpected_super_in_path_token1, 306), (sym_line_comment, 3),
     (anon_sym_LBRACE, 308), (aux_sym_test_pragma_token1, 9), (aux_sym_once_pragma_token1, 11),
     (aux_sym_must_call_pragma_token1, 13), (aux_sym_export_pragma_token1, 15),
     (anon_sym_SEMI, 310), (anon_sym_PERCENT, 312), (aux_sym_input_decls_token1, 2094),
     (aux_sym_output_decls_token1, 2096), (aux_sym_in_out_decls_token1, 318),
     (aux_sym_var_decls_token1, 2098), (aux_sym_temp_var_decls_token1, 322),
     (aux_sym_external_var_decls_token1, 324), (aux_sym_global_var_decls_token1, 326),
     (aux_sym_func_decl_token2, 2548), (aux_sym_method_decl_token1, 330),
     (aux_sym_prog_access_decls_token1, 332), (aux_sym_config_init_token1, 336),
     (aux_sym__stmt_token1, 340), (aux_sym__stmt_token2, 340), (aux_sym__stmt_token3, 340),
     (aux_sym_if_stmt_token1, 342), (aux_sym_case_stmt_token1, 344), (aux_sym_for_stmt_token1, 346),
     (aux_sym_while_stmt_token1, 348), (aux_sym_repeat_stmt_token1, 350),
     (aux_sym_raise_stmt_token1, 352), (aux_sym_try_stmt_token1, 354),
     (aux_sym_try_stmt_token2, 356), (aux_sym_catch_clause_token1, 356),
     (aux_sym_finally_clause_token1, 356), (sym_ld_rung, 2102), (sym_fbd_network, 2104),
     (sym_c_style_comment, 3), (sym_pascal_style_comment, 3), (sym_pragma, 3)]"

lemma ts_parse_row_1044_scan: "row_scan tokens_63_2 0 ts_parse_row_1044 = Some (Suc (Suc (Suc (Suc 0))))"
  unfolding ts_parse_row_1044_def by simp

text \<open>Lines 171926 to 172029.\<close>

definition ts_parse_row_1045 :: parse_row where
  "ts_parse_row_1045 =
    [(sym_ERR_assign_func_call, 7530), (sym_ERR_unexpected_this_in_path, 2372),
     (sym_ERR_unexpected_super_in_path, 2372), (sym_ERR_var_access_not_allowed, 3266),
     (sym_ERR_var_config_not_allowed, 3266), (sym_ERR_var_external_not_allowed, 3266),
     (sym_ERR_var_global_not_allowed, 3266), (sym_ERR_method_decl_in_body, 3150),
     (sym_extern_pragma, 7490), (sym_wasm_pragma, 3150), (sym_warn_pragma, 7490),
     (sym_allow_pragma, 3140), (sym_test_pragma, 7490), (sym_once_pragma, 7490),
     (sym_must_call_pragma, 7490), (sym_export_pragma, 7490), (sym_pou_pragma, 7194),
     (sym_direct_variable, 7675), (sym_deref_expression, 2373), (sym_variable, 7599),
     (sym_var_access, 2373), (sym_input_decls, 3266), (sym_output_decls, 3266),
     (sym_in_out_decls, 3266), (sym_var_decls, 3266), (sym_temp_var_decls, 3266),
     (sym_external_var_decls, 3248), (sym_global_var_decls, 2947), (sym__func_variables, 2367),
     (sym_func_body, 9681), (sym_method_decl, 3159), (sym_prog_access_decls, 3043),
     (sym_config_init, 3047), (sym_variable_access, 7530), (sym_func_call, 2961),
     (sym_stmt_list, 8165), (sym__stmt, 2024), (sym_assign, 3150), (sym_if_stmt, 3150),
     (sym_case_stmt, 3150), (sym_for_stmt, 3150), (sym_while_stmt, 3150), (sym_repeat_stmt, 3150),
     (sym_raise_stmt, 3150), (sym_try_stmt, 3150), (sym_ERR_clause_outside_try, 3150),
     (sym_begin_path_expression, 2943), (sym_invocation, 2934), (sym_any_invocation, 2935),
     (sym_this_invocation, 2641), (sym_super_invocation, 2641), (sym_super_body_invocation, 2935),
     (sym_path_expression, 2627), (sym_field_expression, 2373), (sym_index_expression, 2373),
     (sym_ladder_diagram, 8165), (sym_fb_diagram, 8165), (aux_sym_func_decl_repeat1, 7194),
     (aux_sym_func_decl_repeat3, 2367), (aux_sym_stmt_list_repeat1, 2024),
     (aux_sym_ladder_diagram_repeat1, 7628), (aux_sym_fb_diagram_repeat1, 7633),
     (sym_identifier, 298), (aux_sym_ERR_unexpected_this_in_path_token1, 304),
     (aux_sym_ERR_unexpected_super_in_path_token1, 306), (sym_line_comment, 3),
     (anon_sym_LBRACE, 308), (aux_sym_test_pragma_token1, 9), (aux_sym_once_pragma_token1, 11),
     (aux_sym_must_call_pragma_token1, 13), (aux_sym_export_pragma_token1, 15),
     (anon_sym_SEMI, 310), (anon_sym_PERCENT, 312), (aux_sym_input_decls_token1, 2094),
     (aux_sym_output_decls_token1, 2096), (aux_sym_in_out_decls_token1, 318),
     (aux_sym_var_decls_token1, 2098), (aux_sym_temp_var_decls_token1, 322),
     (aux_sym_external_var_decls_token1, 324), (aux_sym_global_var_decls_token1, 326),
     (aux_sym_func_decl_token2, 2550), (aux_sym_method_decl_token1, 330),
     (aux_sym_prog_access_decls_token1, 332), (aux_sym_config_init_token1, 336),
     (aux_sym__stmt_token1, 340), (aux_sym__stmt_token2, 340), (aux_sym__stmt_token3, 340),
     (aux_sym_if_stmt_token1, 342), (aux_sym_case_stmt_token1, 344), (aux_sym_for_stmt_token1, 346),
     (aux_sym_while_stmt_token1, 348), (aux_sym_repeat_stmt_token1, 350),
     (aux_sym_raise_stmt_token1, 352), (aux_sym_try_stmt_token1, 354),
     (aux_sym_try_stmt_token2, 356), (aux_sym_catch_clause_token1, 356),
     (aux_sym_finally_clause_token1, 356), (sym_ld_rung, 2102), (sym_fbd_network, 2104),
     (sym_c_style_comment, 3), (sym_pascal_style_comment, 3), (sym_pragma, 3)]"

lemma ts_parse_row_1045_scan: "row_scan tokens_63_2 0 ts_parse_row_1045 = Some (Suc (Suc (Suc (Suc 0))))"
  unfolding ts_parse_row_1045_def by simp

text \<open>Lines 172030 to 172133.\<close>

definition ts_parse_row_1046 :: parse_row where
  "ts_parse_row_1046 =
    [(sym_ERR_assign_func_call, 7530), (sym_ERR_unexpected_this_in_path, 2372),
     (sym_ERR_unexpected_super_in_path, 2372), (sym_ERR_var_access_not_allowed, 3196),
     (sym_ERR_var_config_not_allowed, 3196), (sym_ERR_var_external_not_allowed, 3196),
     (sym_ERR_var_global_not_allowed, 3196), (sym_ERR_method_decl_in_body, 3150),
     (sym_extern_pragma, 7490), (sym_wasm_pragma, 3150), (sym_warn_pragma, 7490),
     (sym_allow_pragma, 3140), (sym_test_pragma, 7490), (sym_once_pragma, 7490),
     (sym_must_call_pragma, 7490), (sym_export_pragma, 7490), (sym_pou_pragma, 7194),
     (sym_direct_variable, 7675), (sym_deref_expression, 2373), (sym_variable, 7599),
     (sym_var_access, 2373), (sym_input_decls, 3196), (sym_output_decls, 3196),
     (sym_in_out_decls, 3196), (sym_var_decls, 3196), (sym_temp_var_decls, 3196),
     (sym_external_var_decls, 3197), (sym_global_var_decls, 2947), (sym_func_body, 10343),
     (sym_method_decl, 3159), (sym__method_decl_variables, 2368), (sym_prog_access_decls, 3043),
     (sym_config_init, 3047), (sym_variable_access, 7530), (sym_func_call, 2961),
     (sym_stmt_list, 8165), (sym__stmt, 2024), (sym_assign, 3150), (sym_if_stmt, 3150),
     (sym_case_stmt, 3150), (sym_for_stmt, 3150), (sym_while_stmt, 3150), (sym_repeat_stmt, 3150),
     (sym_raise_stmt, 3150), (sym_try_stmt, 3150), (sym_ERR_clause_outside_try, 3150),
     (sym_begin_path_expression, 2943), (sym_invocation, 2934), (sym_any_invocation, 2935),
     (sym_this_invocation, 2641), (sym_super_invocation, 2641), (sym_super_body_invocation, 2935),
     (sym_path_expression, 2627), (sym_field_expression, 2373), (sym_index_expression, 2373),
     (sym_ladder_diagram, 8165), (sym_fb_diagram, 8165), (aux_sym_func_decl_repeat1, 7194),
     (aux_sym_method_decl_repeat1, 2368), (aux_sym_stmt_list_repeat1, 2024),
     (aux_sym_ladder_diagram_repeat1, 7628), (aux_sym_fb_diagram_repeat1, 7633),
     (sym_identifier, 298), (aux_sym_ERR_unexpected_this_in_path_token1, 304),
     (aux_sym_ERR_unexpected_super_in_path_token1, 306), (sym_line_comment, 3),
     (anon_sym_LBRACE, 308), (aux_sym_test_pragma_token1, 9), (aux_sym_once_pragma_token1, 11),
     (aux_sym_must_call_pragma_token1, 13), (aux_sym_export_pragma_token1, 15),
     (anon_sym_SEMI, 310), (anon_sym_PERCENT, 312), (aux_sym_input_decls_token1, 2094),
     (aux_sym_output_decls_token1, 2096), (aux_sym_in_out_decls_token1, 318),
     (aux_sym_var_decls_token1, 2098), (aux_sym_temp_var_decls_token1, 322),
     (aux_sym_external_var_decls_token1, 324), (aux_sym_global_var_decls_token1, 326),
     (aux_sym_method_decl_token1, 330), (aux_sym_method_decl_token3, 2552),
     (aux_sym_prog_access_decls_token1, 332), (aux_sym_config_init_token1, 336),
     (aux_sym__stmt_token1, 340), (aux_sym__stmt_token2, 340), (aux_sym__stmt_token3, 340),
     (aux_sym_if_stmt_token1, 342), (aux_sym_case_stmt_token1, 344), (aux_sym_for_stmt_token1, 346),
     (aux_sym_while_stmt_token1, 348), (aux_sym_repeat_stmt_token1, 350),
     (aux_sym_raise_stmt_token1, 352), (aux_sym_try_stmt_token1, 354),
     (aux_sym_try_stmt_token2, 356), (aux_sym_catch_clause_token1, 356),
     (aux_sym_finally_clause_token1, 356), (sym_ld_rung, 2102), (sym_fbd_network, 2104),
     (sym_c_style_comment, 3), (sym_pascal_style_comment, 3), (sym_pragma, 3)]"

lemma ts_parse_row_1046_scan: "row_scan tokens_63_2 0 ts_parse_row_1046 = Some (Suc (Suc (Suc (Suc 0))))"
  unfolding ts_parse_row_1046_def by simp

text \<open>Lines 172134 to 172237.\<close>

definition ts_parse_row_1047 :: parse_row where
  "ts_parse_row_1047 =
    [(sym_ERR_assign_func_call, 7530), (sym_ERR_unexpected_this_in_path, 2372),
     (sym_ERR_unexpected_super_in_path, 2372), (sym_ERR_var_access_not_allowed, 3196),
     (sym_ERR_var_config_not_allowed, 3196), (sym_ERR_var_external_not_allowed, 3196),
     (sym_ERR_var_global_not_allowed, 3196), (sym_ERR_method_decl_in_body, 3150),
     (sym_extern_pragma, 7490), (sym_wasm_pragma, 3150), (sym_warn_pragma, 7490),
     (sym_allow_pragma, 3140), (sym_test_pragma, 7490), (sym_once_pragma, 7490),
     (sym_must_call_pragma, 7490), (sym_export_pragma, 7490), (sym_pou_pragma, 7194),
     (sym_direct_variable, 7675), (sym_deref_expression, 2373), (sym_variable, 7599),
     (sym_var_access, 2373), (sym_input_decls, 3196), (sym_output_decls, 3196),
     (sym_in_out_decls, 3196), (sym_var_decls, 3196), (sym_temp_var_decls, 3196),
     (sym_external_var_decls, 3197), (sym_global_var_decls, 2947), (sym_func_body, 10036),
     (sym_method_decl, 3159), (sym__method_decl_variables, 2368), (sym_prog_access_decls, 3043),
     (sym_config_init, 3047), (sym_variable_access, 7530), (sym_func_call, 2961),
     (sym_stmt_list, 8165), (sym__stmt, 2024), (sym_assign, 3150), (sym_if_stmt, 3150),
     (sym_case_stmt, 3150), (sym_for_stmt, 3150), (sym_while_stmt, 3150), (sym_repeat_stmt, 3150),
     (sym_raise_stmt, 3150), (sym_try_stmt, 3150), (sym_ERR_clause_outside_try, 3150),
     (sym_begin_path_expression, 2943), (sym_invocation, 2934), (sym_any_invocation, 2935),
     (sym_this_invocation, 2641), (sym_super_invocation, 2641), (sym_super_body_invocation, 2935),
     (sym_path_expression, 2627), (sym_field_expression, 2373), (sym_index_expression, 2373),
     (sym_ladder_diagram, 8165), (sym_fb_diagram, 8165), (aux_sym_func_decl_repeat1, 7194),
     (aux_sym_method_decl_repeat1, 2368), (aux_sym_stmt_list_repeat1, 2024),
     (aux_sym_ladder_diagram_repeat1, 7628), (aux_sym_fb_diagram_repeat1, 7633),
     (sym_identifier, 298), (aux_sym_ERR_unexpected_this_in_path_token1, 304),
     (aux_sym_ERR_unexpected_super_in_path_token1, 306), (sym_line_comment, 3),
     (anon_sym_LBRACE, 308), (aux_sym_test_pragma_token1, 9), (aux_sym_once_pragma_token1, 11),
     (aux_sym_must_call_pragma_token1, 13), (aux_sym_export_pragma_token1, 15),
     (anon_sym_SEMI, 310), (anon_sym_PERCENT, 312), (aux_sym_input_decls_token1, 2094),
     (aux_sym_output_decls_token1, 2096), (aux_sym_in_out_decls_token1, 318),
     (aux_sym_var_decls_token1, 2098), (aux_sym_temp_var_decls_token1, 322),
     (aux_sym_external_var_decls_token1, 324), (aux_sym_global_var_decls_token1, 326),
     (aux_sym_method_decl_token1, 330), (aux_sym_method_decl_token3, 2554),
     (aux_sym_prog_access_decls_token1, 332), (aux_sym_config_init_token1, 336),
     (aux_sym__stmt_token1, 340), (aux_sym__stmt_token2, 340), (aux_sym__stmt_token3, 340),
     (aux_sym_if_stmt_token1, 342), (aux_sym_case_stmt_token1, 344), (aux_sym_for_stmt_token1, 346),
     (aux_sym_while_stmt_token1, 348), (aux_sym_repeat_stmt_token1, 350),
     (aux_sym_raise_stmt_token1, 352), (aux_sym_try_stmt_token1, 354),
     (aux_sym_try_stmt_token2, 356), (aux_sym_catch_clause_token1, 356),
     (aux_sym_finally_clause_token1, 356), (sym_ld_rung, 2102), (sym_fbd_network, 2104),
     (sym_c_style_comment, 3), (sym_pascal_style_comment, 3), (sym_pragma, 3)]"

lemma ts_parse_row_1047_scan: "row_scan tokens_63_2 0 ts_parse_row_1047 = Some (Suc (Suc (Suc (Suc 0))))"
  unfolding ts_parse_row_1047_def by simp

text \<open>Lines 172238 to 172341.\<close>

definition ts_parse_row_1048 :: parse_row where
  "ts_parse_row_1048 =
    [(sym_ERR_assign_func_call, 7530), (sym_ERR_unexpected_this_in_path, 2372),
     (sym_ERR_unexpected_super_in_path, 2372), (sym_ERR_var_access_not_allowed, 3266),
     (sym_ERR_var_config_not_allowed, 3266), (sym_ERR_var_external_not_allowed, 3266),
     (sym_ERR_var_global_not_allowed, 3266), (sym_ERR_method_decl_in_body, 3150),
     (sym_extern_pragma, 7490), (sym_wasm_pragma, 3150), (sym_warn_pragma, 7490),
     (sym_allow_pragma, 3140), (sym_test_pragma, 7490), (sym_once_pragma, 7490),
     (sym_must_call_pragma, 7490), (sym_export_pragma, 7490), (sym_pou_pragma, 7194),
     (sym_direct_variable, 7675), (sym_deref_expression, 2373), (sym_variable, 7599),
     (sym_var_access, 2373), (sym_input_decls, 3266), (sym_output_decls, 3266),
     (sym_in_out_decls, 3266), (sym_var_decls, 3266), (sym_temp_var_decls, 3266),
     (sym_external_var_decls, 3248), (sym_global_var_decls, 2947), (sym__func_variables, 2367),
     (sym_func_body, 9789), (sym_method_decl, 3159), (sym_prog_access_decls, 3043),
     (sym_config_init, 3047), (sym_variable_access, 7530), (sym_func_call, 2961),
     (sym_stmt_list, 8165), (sym__stmt, 2024), (sym_assign, 3150), (sym_if_stmt, 3150),
     (sym_case_stmt, 3150), (sym_for_stmt, 3150), (sym_while_stmt, 3150), (sym_repeat_stmt, 3150),
     (sym_raise_stmt, 3150), (sym_try_stmt, 3150), (sym_ERR_clause_outside_try, 3150),
     (sym_begin_path_expression, 2943), (sym_invocation, 2934), (sym_any_invocation, 2935),
     (sym_this_invocation, 2641), (sym_super_invocation, 2641), (sym_super_body_invocation, 2935),
     (sym_path_expression, 2627), (sym_field_expression, 2373), (sym_index_expression, 2373),
     (sym_ladder_diagram, 8165), (sym_fb_diagram, 8165), (aux_sym_func_decl_repeat1, 7194),
     (aux_sym_func_decl_repeat3, 2367), (aux_sym_stmt_list_repeat1, 2024),
     (aux_sym_ladder_diagram_repeat1, 7628), (aux_sym_fb_diagram_repeat1, 7633),
     (sym_identifier, 298), (aux_sym_ERR_unexpected_this_in_path_token1, 304),
     (aux_sym_ERR_unexpected_super_in_path_token1, 306), (sym_line_comment, 3),
     (anon_sym_LBRACE, 308), (aux_sym_test_pragma_token1, 9), (aux_sym_once_pragma_token1, 11),
     (aux_sym_must_call_pragma_token1, 13), (aux_sym_export_pragma_token1, 15),
     (anon_sym_SEMI, 310), (anon_sym_PERCENT, 312), (aux_sym_input_decls_token1, 2094),
     (aux_sym_output_decls_token1, 2096), (aux_sym_in_out_decls_token1, 318),
     (aux_sym_var_decls_token1, 2098), (aux_sym_temp_var_decls_token1, 322),
     (aux_sym_external_var_decls_token1, 324), (aux_sym_global_var_decls_token1, 326),
     (aux_sym_func_decl_token2, 2556), (aux_sym_method_decl_token1, 330),
     (aux_sym_prog_access_decls_token1, 332), (aux_sym_config_init_token1, 336),
     (aux_sym__stmt_token1, 340), (aux_sym__stmt_token2, 340), (aux_sym__stmt_token3, 340),
     (aux_sym_if_stmt_token1, 342), (aux_sym_case_stmt_token1, 344), (aux_sym_for_stmt_token1, 346),
     (aux_sym_while_stmt_token1, 348), (aux_sym_repeat_stmt_token1, 350),
     (aux_sym_raise_stmt_token1, 352), (aux_sym_try_stmt_token1, 354),
     (aux_sym_try_stmt_token2, 356), (aux_sym_catch_clause_token1, 356),
     (aux_sym_finally_clause_token1, 356), (sym_ld_rung, 2102), (sym_fbd_network, 2104),
     (sym_c_style_comment, 3), (sym_pascal_style_comment, 3), (sym_pragma, 3)]"

lemma ts_parse_row_1048_scan: "row_scan tokens_63_2 0 ts_parse_row_1048 = Some (Suc (Suc (Suc (Suc 0))))"
  unfolding ts_parse_row_1048_def by simp

text \<open>Lines 172342 to 172445.\<close>

definition ts_parse_row_1049 :: parse_row where
  "ts_parse_row_1049 =
    [(sym_ERR_assign_func_call, 7530), (sym_ERR_unexpected_this_in_path, 2372),
     (sym_ERR_unexpected_super_in_path, 2372), (sym_ERR_var_access_not_allowed, 3196),
     (sym_ERR_var_config_not_allowed, 3196), (sym_ERR_var_external_not_allowed, 3196),
     (sym_ERR_var_global_not_allowed, 3196), (sym_ERR_method_decl_in_body, 3150),
     (sym_extern_pragma, 7490), (sym_wasm_pragma, 3150), (sym_warn_pragma, 7490),
     (sym_allow_pragma, 3140), (sym_test_pragma, 7490), (sym_once_pragma, 7490),
     (sym_must_call_pragma, 7490), (sym_export_pragma, 7490), (sym_pou_pragma, 7194),
     (sym_direct_variable, 7675), (sym_deref_expression, 2373), (sym_variable, 7599),
     (sym_var_access, 2373), (sym_input_decls, 3196), (sym_output_decls, 3196),
     (sym_in_out_decls, 3196), (sym_var_decls, 3196), (sym_temp_var_decls, 3196),
     (sym_external_var_decls, 3197), (sym_global_var_decls, 2947), (sym_func_body, 10350),
     (sym_method_decl, 3159), (sym__method_decl_variables, 2368), (sym_prog_access_decls, 3043),
     (sym_config_init, 3047), (sym_variable_access, 7530), (sym_func_call, 2961),
     (sym_stmt_list, 8165), (sym__stmt, 2024), (sym_assign, 3150), (sym_if_stmt, 3150),
     (sym_case_stmt, 3150), (sym_for_stmt, 3150), (sym_while_stmt, 3150), (sym_repeat_stmt, 3150),
     (sym_raise_stmt, 3150), (sym_try_stmt, 3150), (sym_ERR_clause_outside_try, 3150),
     (sym_begin_path_expression, 2943), (sym_invocation, 2934), (sym_any_invocation, 2935),
     (sym_this_invocation, 2641), (sym_super_invocation, 2641), (sym_super_body_invocation, 2935),
     (sym_path_expression, 2627), (sym_field_expression, 2373), (sym_index_expression, 2373),
     (sym_ladder_diagram, 8165), (sym_fb_diagram, 8165), (aux_sym_func_decl_repeat1, 7194),
     (aux_sym_method_decl_repeat1, 2368), (aux_sym_stmt_list_repeat1, 2024),
     (aux_sym_ladder_diagram_repeat1, 7628), (aux_sym_fb_diagram_repeat1, 7633),
     (sym_identifier, 298), (aux_sym_ERR_unexpected_this_in_path_token1, 304),
     (aux_sym_ERR_unexpected_super_in_path_token1, 306), (sym_line_comment, 3),
     (anon_sym_LBRACE, 308), (aux_sym_test_pragma_token1, 9), (aux_sym_once_pragma_token1, 11),
     (aux_sym_must_call_pragma_token1, 13), (aux_sym_export_pragma_token1, 15),
     (anon_sym_SEMI, 310), (anon_sym_PERCENT, 312), (aux_sym_input_decls_token1, 2094),
     (aux_sym_output_decls_token1, 2096), (aux_sym_in_out_decls_token1, 318),
     (aux_sym_var_decls_token1, 2098), (aux_sym_temp_var_decls_token1, 322),
     (aux_sym_external_var_decls_token1, 324), (aux_sym_global_var_decls_token1, 326),
     (aux_sym_method_decl_token1, 330), (aux_sym_method_decl_token3, 2558),
     (aux_sym_prog_access_decls_token1, 332), (aux_sym_config_init_token1, 336),
     (aux_sym__stmt_token1, 340), (aux_sym__stmt_token2, 340), (aux_sym__stmt_token3, 340),
     (aux_sym_if_stmt_token1, 342), (aux_sym_case_stmt_token1, 344), (aux_sym_for_stmt_token1, 346),
     (aux_sym_while_stmt_token1, 348), (aux_sym_repeat_stmt_token1, 350),
     (aux_sym_raise_stmt_token1, 352), (aux_sym_try_stmt_token1, 354),
     (aux_sym_try_stmt_token2, 356), (aux_sym_catch_clause_token1, 356),
     (aux_sym_finally_clause_token1, 356), (sym_ld_rung, 2102), (sym_fbd_network, 2104),
     (sym_c_style_comment, 3), (sym_pascal_style_comment, 3), (sym_pragma, 3)]"

lemma ts_parse_row_1049_scan: "row_scan tokens_63_2 0 ts_parse_row_1049 = Some (Suc (Suc (Suc (Suc 0))))"
  unfolding ts_parse_row_1049_def by simp

definition parse_rows_7 :: "parse_row list" where
  "parse_rows_7 =
    [ts_parse_row_900, ts_parse_row_901, ts_parse_row_902, ts_parse_row_903, ts_parse_row_904,
     ts_parse_row_905, ts_parse_row_906, ts_parse_row_907, ts_parse_row_908, ts_parse_row_909,
     ts_parse_row_910, ts_parse_row_911, ts_parse_row_912, ts_parse_row_913, ts_parse_row_914,
     ts_parse_row_915, ts_parse_row_916, ts_parse_row_917, ts_parse_row_918, ts_parse_row_919,
     ts_parse_row_920, ts_parse_row_921, ts_parse_row_922, ts_parse_row_923, ts_parse_row_924,
     ts_parse_row_925, ts_parse_row_926, ts_parse_row_927, ts_parse_row_928, ts_parse_row_929,
     ts_parse_row_930, ts_parse_row_931, ts_parse_row_932, ts_parse_row_933, ts_parse_row_934,
     ts_parse_row_935, ts_parse_row_936, ts_parse_row_937, ts_parse_row_938, ts_parse_row_939,
     ts_parse_row_940, ts_parse_row_941, ts_parse_row_942, ts_parse_row_943, ts_parse_row_944,
     ts_parse_row_945, ts_parse_row_946, ts_parse_row_947, ts_parse_row_948, ts_parse_row_949,
     ts_parse_row_950, ts_parse_row_951, ts_parse_row_952, ts_parse_row_953, ts_parse_row_954,
     ts_parse_row_955, ts_parse_row_956, ts_parse_row_957, ts_parse_row_958, ts_parse_row_959,
     ts_parse_row_960, ts_parse_row_961, ts_parse_row_962, ts_parse_row_963, ts_parse_row_964,
     ts_parse_row_965, ts_parse_row_966, ts_parse_row_967, ts_parse_row_968, ts_parse_row_969,
     ts_parse_row_970, ts_parse_row_971, ts_parse_row_972, ts_parse_row_973, ts_parse_row_974,
     ts_parse_row_975, ts_parse_row_976, ts_parse_row_977, ts_parse_row_978, ts_parse_row_979,
     ts_parse_row_980, ts_parse_row_981, ts_parse_row_982, ts_parse_row_983, ts_parse_row_984,
     ts_parse_row_985, ts_parse_row_986, ts_parse_row_987, ts_parse_row_988, ts_parse_row_989,
     ts_parse_row_990, ts_parse_row_991, ts_parse_row_992, ts_parse_row_993, ts_parse_row_994,
     ts_parse_row_995, ts_parse_row_996, ts_parse_row_997, ts_parse_row_998, ts_parse_row_999,
     ts_parse_row_1000, ts_parse_row_1001, ts_parse_row_1002, ts_parse_row_1003, ts_parse_row_1004,
     ts_parse_row_1005, ts_parse_row_1006, ts_parse_row_1007, ts_parse_row_1008, ts_parse_row_1009,
     ts_parse_row_1010, ts_parse_row_1011, ts_parse_row_1012, ts_parse_row_1013, ts_parse_row_1014,
     ts_parse_row_1015, ts_parse_row_1016, ts_parse_row_1017, ts_parse_row_1018, ts_parse_row_1019,
     ts_parse_row_1020, ts_parse_row_1021, ts_parse_row_1022, ts_parse_row_1023, ts_parse_row_1024,
     ts_parse_row_1025, ts_parse_row_1026, ts_parse_row_1027, ts_parse_row_1028, ts_parse_row_1029,
     ts_parse_row_1030, ts_parse_row_1031, ts_parse_row_1032, ts_parse_row_1033, ts_parse_row_1034,
     ts_parse_row_1035, ts_parse_row_1036, ts_parse_row_1037, ts_parse_row_1038, ts_parse_row_1039,
     ts_parse_row_1040, ts_parse_row_1041, ts_parse_row_1042, ts_parse_row_1043, ts_parse_row_1044,
     ts_parse_row_1045, ts_parse_row_1046, ts_parse_row_1047, ts_parse_row_1048, ts_parse_row_1049]"

lemmas parse_rows_7_scan =
  ts_parse_row_900_scan ts_parse_row_901_scan ts_parse_row_902_scan ts_parse_row_903_scan
  ts_parse_row_904_scan ts_parse_row_905_scan ts_parse_row_906_scan ts_parse_row_907_scan
  ts_parse_row_908_scan ts_parse_row_909_scan ts_parse_row_910_scan ts_parse_row_911_scan
  ts_parse_row_912_scan ts_parse_row_913_scan ts_parse_row_914_scan ts_parse_row_915_scan
  ts_parse_row_916_scan ts_parse_row_917_scan ts_parse_row_918_scan ts_parse_row_919_scan
  ts_parse_row_920_scan ts_parse_row_921_scan ts_parse_row_922_scan ts_parse_row_923_scan
  ts_parse_row_924_scan ts_parse_row_925_scan ts_parse_row_926_scan ts_parse_row_927_scan
  ts_parse_row_928_scan ts_parse_row_929_scan ts_parse_row_930_scan ts_parse_row_931_scan
  ts_parse_row_932_scan ts_parse_row_933_scan ts_parse_row_934_scan ts_parse_row_935_scan
  ts_parse_row_936_scan ts_parse_row_937_scan ts_parse_row_938_scan ts_parse_row_939_scan
  ts_parse_row_940_scan ts_parse_row_941_scan ts_parse_row_942_scan ts_parse_row_943_scan
  ts_parse_row_944_scan ts_parse_row_945_scan ts_parse_row_946_scan ts_parse_row_947_scan
  ts_parse_row_948_scan ts_parse_row_949_scan ts_parse_row_950_scan ts_parse_row_951_scan
  ts_parse_row_952_scan ts_parse_row_953_scan ts_parse_row_954_scan ts_parse_row_955_scan
  ts_parse_row_956_scan ts_parse_row_957_scan ts_parse_row_958_scan ts_parse_row_959_scan
  ts_parse_row_960_scan ts_parse_row_961_scan ts_parse_row_962_scan ts_parse_row_963_scan
  ts_parse_row_964_scan ts_parse_row_965_scan ts_parse_row_966_scan ts_parse_row_967_scan
  ts_parse_row_968_scan ts_parse_row_969_scan ts_parse_row_970_scan ts_parse_row_971_scan
  ts_parse_row_972_scan ts_parse_row_973_scan ts_parse_row_974_scan ts_parse_row_975_scan
  ts_parse_row_976_scan ts_parse_row_977_scan ts_parse_row_978_scan ts_parse_row_979_scan
  ts_parse_row_980_scan ts_parse_row_981_scan ts_parse_row_982_scan ts_parse_row_983_scan
  ts_parse_row_984_scan ts_parse_row_985_scan ts_parse_row_986_scan ts_parse_row_987_scan
  ts_parse_row_988_scan ts_parse_row_989_scan ts_parse_row_990_scan ts_parse_row_991_scan
  ts_parse_row_992_scan ts_parse_row_993_scan ts_parse_row_994_scan ts_parse_row_995_scan
  ts_parse_row_996_scan ts_parse_row_997_scan ts_parse_row_998_scan ts_parse_row_999_scan
  ts_parse_row_1000_scan ts_parse_row_1001_scan ts_parse_row_1002_scan ts_parse_row_1003_scan
  ts_parse_row_1004_scan ts_parse_row_1005_scan ts_parse_row_1006_scan ts_parse_row_1007_scan
  ts_parse_row_1008_scan ts_parse_row_1009_scan ts_parse_row_1010_scan ts_parse_row_1011_scan
  ts_parse_row_1012_scan ts_parse_row_1013_scan ts_parse_row_1014_scan ts_parse_row_1015_scan
  ts_parse_row_1016_scan ts_parse_row_1017_scan ts_parse_row_1018_scan ts_parse_row_1019_scan
  ts_parse_row_1020_scan ts_parse_row_1021_scan ts_parse_row_1022_scan ts_parse_row_1023_scan
  ts_parse_row_1024_scan ts_parse_row_1025_scan ts_parse_row_1026_scan ts_parse_row_1027_scan
  ts_parse_row_1028_scan ts_parse_row_1029_scan ts_parse_row_1030_scan ts_parse_row_1031_scan
  ts_parse_row_1032_scan ts_parse_row_1033_scan ts_parse_row_1034_scan ts_parse_row_1035_scan
  ts_parse_row_1036_scan ts_parse_row_1037_scan ts_parse_row_1038_scan ts_parse_row_1039_scan
  ts_parse_row_1040_scan ts_parse_row_1041_scan ts_parse_row_1042_scan ts_parse_row_1043_scan
  ts_parse_row_1044_scan ts_parse_row_1045_scan ts_parse_row_1046_scan ts_parse_row_1047_scan
  ts_parse_row_1048_scan ts_parse_row_1049_scan

end
