(* ===== verification/Parse_Table_8.thy ===== *)
theory Parse_Table_8
  imports Parse_Cells
begin

text \<open>
  The rows 1050 to 1199 of \<open>ts_parse_table\<close> in \<open>src/crates/tree-sitter/src/parser.c\<close>, and the check of each
  against the tokens of its mode.
\<close>

text \<open>Lines 172446 to 172549.\<close>

definition ts_parse_row_1050 :: parse_row where
  "ts_parse_row_1050 =
    [(sym_ERR_assign_func_call, 7530), (sym_ERR_unexpected_this_in_path, 2372),
     (sym_ERR_unexpected_super_in_path, 2372), (sym_ERR_var_access_not_allowed, 3266),
     (sym_ERR_var_config_not_allowed, 3266), (sym_ERR_var_external_not_allowed, 3266),
     (sym_ERR_var_global_not_allowed, 3266), (sym_ERR_method_decl_in_body, 3150),
     (sym_extern_pragma, 7490), (sym_wasm_pragma, 3150), (sym_warn_pragma, 7490),
     (sym_allow_pragma, 3140), (sym_test_pragma, 7490), (sym_once_pragma, 7490),
     (sym_must_call_pragma, 7490), (sym_export_pragma, 7490), (sym_pou_pragma, 7194),
     (sym_direct_variable, 7675), (sym_deref_expression, 2373), (sym_variable, 7599),
     (sym_var_access, 2373), (sym_input_decls, 3266), (sym_output_decls, 3266),
     (sym_in_out_decls, 3266), (sym_var_decls, 3266), (sym_temp_var_decls, 3266),
     (sym_external_var_decls, 3248), (sym_global_var_decls, 2947), (sym__func_variables, 2367),
     (sym_func_body, 9638), (sym_method_decl, 3159), (sym_prog_access_decls, 3043),
     (sym_config_init, 3047), (sym_variable_access, 7530), (sym_func_call, 2961),
     (sym_stmt_list, 8165), (sym__stmt, 2024), (sym_assign, 3150), (sym_if_stmt, 3150),
     (sym_case_stmt, 3150), (sym_for_stmt, 3150), (sym_while_stmt, 3150), (sym_repeat_stmt, 3150),
     (sym_raise_stmt, 3150), (sym_try_stmt, 3150), (sym_ERR_clause_outside_try, 3150),
     (sym_begin_path_expression, 2943), (sym_invocation, 2934), (sym_any_invocation, 2935),
     (sym_this_invocation, 2641), (sym_super_invocation, 2641), (sym_super_body_invocation, 2935),
     (sym_path_expression, 2627), (sym_field_expression, 2373), (sym_index_expression, 2373),
     (sym_ladder_diagram, 8165), (sym_fb_diagram, 8165), (aux_sym_func_decl_repeat1, 7194),
     (aux_sym_func_decl_repeat3, 2367), (aux_sym_stmt_list_repeat1, 2024),
     (aux_sym_ladder_diagram_repeat1, 7628), (aux_sym_fb_diagram_repeat1, 7633),
     (sym_identifier, 298), (aux_sym_ERR_unexpected_this_in_path_token1, 304),
     (aux_sym_ERR_unexpected_super_in_path_token1, 306), (sym_line_comment, 3),
     (anon_sym_LBRACE, 308), (aux_sym_test_pragma_token1, 9), (aux_sym_once_pragma_token1, 11),
     (aux_sym_must_call_pragma_token1, 13), (aux_sym_export_pragma_token1, 15),
     (anon_sym_SEMI, 310), (anon_sym_PERCENT, 312), (aux_sym_input_decls_token1, 2094),
     (aux_sym_output_decls_token1, 2096), (aux_sym_in_out_decls_token1, 318),
     (aux_sym_var_decls_token1, 2098), (aux_sym_temp_var_decls_token1, 322),
     (aux_sym_external_var_decls_token1, 324), (aux_sym_global_var_decls_token1, 326),
     (aux_sym_func_decl_token2, 2560), (aux_sym_method_decl_token1, 330),
     (aux_sym_prog_access_decls_token1, 332), (aux_sym_config_init_token1, 336),
     (aux_sym__stmt_token1, 340), (aux_sym__stmt_token2, 340), (aux_sym__stmt_token3, 340),
     (aux_sym_if_stmt_token1, 342), (aux_sym_case_stmt_token1, 344), (aux_sym_for_stmt_token1, 346),
     (aux_sym_while_stmt_token1, 348), (aux_sym_repeat_stmt_token1, 350),
     (aux_sym_raise_stmt_token1, 352), (aux_sym_try_stmt_token1, 354),
     (aux_sym_try_stmt_token2, 356), (aux_sym_catch_clause_token1, 356),
     (aux_sym_finally_clause_token1, 356), (sym_ld_rung, 2102), (sym_fbd_network, 2104),
     (sym_c_style_comment, 3), (sym_pascal_style_comment, 3), (sym_pragma, 3)]"

lemma ts_parse_row_1050_scan: "row_scan tokens_63_2 0 ts_parse_row_1050 = Some (Suc (Suc (Suc (Suc 0))))"
  unfolding ts_parse_row_1050_def by simp

text \<open>Lines 172550 to 172653.\<close>

definition ts_parse_row_1051 :: parse_row where
  "ts_parse_row_1051 =
    [(sym_ERR_assign_func_call, 7530), (sym_ERR_unexpected_this_in_path, 2372),
     (sym_ERR_unexpected_super_in_path, 2372), (sym_ERR_var_access_not_allowed, 3196),
     (sym_ERR_var_config_not_allowed, 3196), (sym_ERR_var_external_not_allowed, 3196),
     (sym_ERR_var_global_not_allowed, 3196), (sym_ERR_method_decl_in_body, 3150),
     (sym_extern_pragma, 7490), (sym_wasm_pragma, 3150), (sym_warn_pragma, 7490),
     (sym_allow_pragma, 3140), (sym_test_pragma, 7490), (sym_once_pragma, 7490),
     (sym_must_call_pragma, 7490), (sym_export_pragma, 7490), (sym_pou_pragma, 7194),
     (sym_direct_variable, 7675), (sym_deref_expression, 2373), (sym_variable, 7599),
     (sym_var_access, 2373), (sym_input_decls, 3196), (sym_output_decls, 3196),
     (sym_in_out_decls, 3196), (sym_var_decls, 3196), (sym_temp_var_decls, 3196),
     (sym_external_var_decls, 3197), (sym_global_var_decls, 2947), (sym_func_body, 10356),
     (sym_method_decl, 3159), (sym__method_decl_variables, 2368), (sym_prog_access_decls, 3043),
     (sym_config_init, 3047), (sym_variable_access, 7530), (sym_func_call, 2961),
     (sym_stmt_list, 8165), (sym__stmt, 2024), (sym_assign, 3150), (sym_if_stmt, 3150),
     (sym_case_stmt, 3150), (sym_for_stmt, 3150), (sym_while_stmt, 3150), (sym_repeat_stmt, 3150),
     (sym_raise_stmt, 3150), (sym_try_stmt, 3150), (sym_ERR_clause_outside_try, 3150),
     (sym_begin_path_expression, 2943), (sym_invocation, 2934), (sym_any_invocation, 2935),
     (sym_this_invocation, 2641), (sym_super_invocation, 2641), (sym_super_body_invocation, 2935),
     (sym_path_expression, 2627), (sym_field_expression, 2373), (sym_index_expression, 2373),
     (sym_ladder_diagram, 8165), (sym_fb_diagram, 8165), (aux_sym_func_decl_repeat1, 7194),
     (aux_sym_method_decl_repeat1, 2368), (aux_sym_stmt_list_repeat1, 2024),
     (aux_sym_ladder_diagram_repeat1, 7628), (aux_sym_fb_diagram_repeat1, 7633),
     (sym_identifier, 298), (aux_sym_ERR_unexpected_this_in_path_token1, 304),
     (aux_sym_ERR_unexpected_super_in_path_token1, 306), (sym_line_comment, 3),
     (anon_sym_LBRACE, 308), (aux_sym_test_pragma_token1, 9), (aux_sym_once_pragma_token1, 11),
     (aux_sym_must_call_pragma_token1, 13), (aux_sym_export_pragma_token1, 15),
     (anon_sym_SEMI, 310), (anon_sym_PERCENT, 312), (aux_sym_input_decls_token1, 2094),
     (aux_sym_output_decls_token1, 2096), (aux_sym_in_out_decls_token1, 318),
     (aux_sym_var_decls_token1, 2098), (aux_sym_temp_var_decls_token1, 322),
     (aux_sym_external_var_decls_token1, 324), (aux_sym_global_var_decls_token1, 326),
     (aux_sym_method_decl_token1, 330), (aux_sym_method_decl_token3, 2562),
     (aux_sym_prog_access_decls_token1, 332), (aux_sym_config_init_token1, 336),
     (aux_sym__stmt_token1, 340), (aux_sym__stmt_token2, 340), (aux_sym__stmt_token3, 340),
     (aux_sym_if_stmt_token1, 342), (aux_sym_case_stmt_token1, 344), (aux_sym_for_stmt_token1, 346),
     (aux_sym_while_stmt_token1, 348), (aux_sym_repeat_stmt_token1, 350),
     (aux_sym_raise_stmt_token1, 352), (aux_sym_try_stmt_token1, 354),
     (aux_sym_try_stmt_token2, 356), (aux_sym_catch_clause_token1, 356),
     (aux_sym_finally_clause_token1, 356), (sym_ld_rung, 2102), (sym_fbd_network, 2104),
     (sym_c_style_comment, 3), (sym_pascal_style_comment, 3), (sym_pragma, 3)]"

lemma ts_parse_row_1051_scan: "row_scan tokens_63_2 0 ts_parse_row_1051 = Some (Suc (Suc (Suc (Suc 0))))"
  unfolding ts_parse_row_1051_def by simp

text \<open>Lines 172654 to 172757.\<close>

definition ts_parse_row_1052 :: parse_row where
  "ts_parse_row_1052 =
    [(sym_ERR_assign_func_call, 7530), (sym_ERR_unexpected_this_in_path, 2372),
     (sym_ERR_unexpected_super_in_path, 2372), (sym_ERR_var_access_not_allowed, 3196),
     (sym_ERR_var_config_not_allowed, 3196), (sym_ERR_var_external_not_allowed, 3196),
     (sym_ERR_var_global_not_allowed, 3196), (sym_ERR_method_decl_in_body, 3150),
     (sym_extern_pragma, 7490), (sym_wasm_pragma, 3150), (sym_warn_pragma, 7490),
     (sym_allow_pragma, 3140), (sym_test_pragma, 7490), (sym_once_pragma, 7490),
     (sym_must_call_pragma, 7490), (sym_export_pragma, 7490), (sym_pou_pragma, 7194),
     (sym_direct_variable, 7675), (sym_deref_expression, 2373), (sym_variable, 7599),
     (sym_var_access, 2373), (sym_input_decls, 3196), (sym_output_decls, 3196),
     (sym_in_out_decls, 3196), (sym_var_decls, 3196), (sym_temp_var_decls, 3196),
     (sym_external_var_decls, 3197), (sym_global_var_decls, 2947), (sym_func_body, 10357),
     (sym_method_decl, 3159), (sym__method_decl_variables, 1065), (sym_prog_access_decls, 3043),
     (sym_config_init, 3047), (sym_variable_access, 7530), (sym_func_call, 2961),
     (sym_stmt_list, 8165), (sym__stmt, 2024), (sym_assign, 3150), (sym_if_stmt, 3150),
     (sym_case_stmt, 3150), (sym_for_stmt, 3150), (sym_while_stmt, 3150), (sym_repeat_stmt, 3150),
     (sym_raise_stmt, 3150), (sym_try_stmt, 3150), (sym_ERR_clause_outside_try, 3150),
     (sym_begin_path_expression, 2943), (sym_invocation, 2934), (sym_any_invocation, 2935),
     (sym_this_invocation, 2641), (sym_super_invocation, 2641), (sym_super_body_invocation, 2935),
     (sym_path_expression, 2627), (sym_field_expression, 2373), (sym_index_expression, 2373),
     (sym_ladder_diagram, 8165), (sym_fb_diagram, 8165), (aux_sym_func_decl_repeat1, 7194),
     (aux_sym_method_decl_repeat1, 1065), (aux_sym_stmt_list_repeat1, 2024),
     (aux_sym_ladder_diagram_repeat1, 7628), (aux_sym_fb_diagram_repeat1, 7633),
     (sym_identifier, 298), (aux_sym_ERR_unexpected_this_in_path_token1, 304),
     (aux_sym_ERR_unexpected_super_in_path_token1, 306), (sym_line_comment, 3),
     (anon_sym_LBRACE, 308), (aux_sym_test_pragma_token1, 9), (aux_sym_once_pragma_token1, 11),
     (aux_sym_must_call_pragma_token1, 13), (aux_sym_export_pragma_token1, 15),
     (anon_sym_SEMI, 310), (anon_sym_PERCENT, 312), (aux_sym_input_decls_token1, 2094),
     (aux_sym_output_decls_token1, 2096), (aux_sym_in_out_decls_token1, 318),
     (aux_sym_var_decls_token1, 2098), (aux_sym_temp_var_decls_token1, 322),
     (aux_sym_external_var_decls_token1, 324), (aux_sym_global_var_decls_token1, 326),
     (aux_sym_method_decl_token1, 330), (aux_sym_method_decl_token3, 2564),
     (aux_sym_prog_access_decls_token1, 332), (aux_sym_config_init_token1, 336),
     (aux_sym__stmt_token1, 340), (aux_sym__stmt_token2, 340), (aux_sym__stmt_token3, 340),
     (aux_sym_if_stmt_token1, 342), (aux_sym_case_stmt_token1, 344), (aux_sym_for_stmt_token1, 346),
     (aux_sym_while_stmt_token1, 348), (aux_sym_repeat_stmt_token1, 350),
     (aux_sym_raise_stmt_token1, 352), (aux_sym_try_stmt_token1, 354),
     (aux_sym_try_stmt_token2, 356), (aux_sym_catch_clause_token1, 356),
     (aux_sym_finally_clause_token1, 356), (sym_ld_rung, 2102), (sym_fbd_network, 2104),
     (sym_c_style_comment, 3), (sym_pascal_style_comment, 3), (sym_pragma, 3)]"

lemma ts_parse_row_1052_scan: "row_scan tokens_63_2 0 ts_parse_row_1052 = Some (Suc (Suc (Suc (Suc 0))))"
  unfolding ts_parse_row_1052_def by simp

text \<open>Lines 172758 to 172861.\<close>

definition ts_parse_row_1053 :: parse_row where
  "ts_parse_row_1053 =
    [(sym_ERR_assign_func_call, 7530), (sym_ERR_unexpected_this_in_path, 2372),
     (sym_ERR_unexpected_super_in_path, 2372), (sym_ERR_var_access_not_allowed, 3196),
     (sym_ERR_var_config_not_allowed, 3196), (sym_ERR_var_external_not_allowed, 3196),
     (sym_ERR_var_global_not_allowed, 3196), (sym_ERR_method_decl_in_body, 3150),
     (sym_extern_pragma, 7490), (sym_wasm_pragma, 3150), (sym_warn_pragma, 7490),
     (sym_allow_pragma, 3140), (sym_test_pragma, 7490), (sym_once_pragma, 7490),
     (sym_must_call_pragma, 7490), (sym_export_pragma, 7490), (sym_pou_pragma, 7194),
     (sym_direct_variable, 7675), (sym_deref_expression, 2373), (sym_variable, 7599),
     (sym_var_access, 2373), (sym_input_decls, 3196), (sym_output_decls, 3196),
     (sym_in_out_decls, 3196), (sym_var_decls, 3196), (sym_temp_var_decls, 3196),
     (sym_external_var_decls, 3197), (sym_global_var_decls, 2947), (sym_func_body, 10359),
     (sym_method_decl, 3159), (sym__method_decl_variables, 1066), (sym_prog_access_decls, 3043),
     (sym_config_init, 3047), (sym_variable_access, 7530), (sym_func_call, 2961),
     (sym_stmt_list, 8165), (sym__stmt, 2024), (sym_assign, 3150), (sym_if_stmt, 3150),
     (sym_case_stmt, 3150), (sym_for_stmt, 3150), (sym_while_stmt, 3150), (sym_repeat_stmt, 3150),
     (sym_raise_stmt, 3150), (sym_try_stmt, 3150), (sym_ERR_clause_outside_try, 3150),
     (sym_begin_path_expression, 2943), (sym_invocation, 2934), (sym_any_invocation, 2935),
     (sym_this_invocation, 2641), (sym_super_invocation, 2641), (sym_super_body_invocation, 2935),
     (sym_path_expression, 2627), (sym_field_expression, 2373), (sym_index_expression, 2373),
     (sym_ladder_diagram, 8165), (sym_fb_diagram, 8165), (aux_sym_func_decl_repeat1, 7194),
     (aux_sym_method_decl_repeat1, 1066), (aux_sym_stmt_list_repeat1, 2024),
     (aux_sym_ladder_diagram_repeat1, 7628), (aux_sym_fb_diagram_repeat1, 7633),
     (sym_identifier, 298), (aux_sym_ERR_unexpected_this_in_path_token1, 304),
     (aux_sym_ERR_unexpected_super_in_path_token1, 306), (sym_line_comment, 3),
     (anon_sym_LBRACE, 308), (aux_sym_test_pragma_token1, 9), (aux_sym_once_pragma_token1, 11),
     (aux_sym_must_call_pragma_token1, 13), (aux_sym_export_pragma_token1, 15),
     (anon_sym_SEMI, 310), (anon_sym_PERCENT, 312), (aux_sym_input_decls_token1, 2094),
     (aux_sym_output_decls_token1, 2096), (aux_sym_in_out_decls_token1, 318),
     (aux_sym_var_decls_token1, 2098), (aux_sym_temp_var_decls_token1, 322),
     (aux_sym_external_var_decls_token1, 324), (aux_sym_global_var_decls_token1, 326),
     (aux_sym_method_decl_token1, 330), (aux_sym_method_decl_token3, 2566),
     (aux_sym_prog_access_decls_token1, 332), (aux_sym_config_init_token1, 336),
     (aux_sym__stmt_token1, 340), (aux_sym__stmt_token2, 340), (aux_sym__stmt_token3, 340),
     (aux_sym_if_stmt_token1, 342), (aux_sym_case_stmt_token1, 344), (aux_sym_for_stmt_token1, 346),
     (aux_sym_while_stmt_token1, 348), (aux_sym_repeat_stmt_token1, 350),
     (aux_sym_raise_stmt_token1, 352), (aux_sym_try_stmt_token1, 354),
     (aux_sym_try_stmt_token2, 356), (aux_sym_catch_clause_token1, 356),
     (aux_sym_finally_clause_token1, 356), (sym_ld_rung, 2102), (sym_fbd_network, 2104),
     (sym_c_style_comment, 3), (sym_pascal_style_comment, 3), (sym_pragma, 3)]"

lemma ts_parse_row_1053_scan: "row_scan tokens_63_2 0 ts_parse_row_1053 = Some (Suc (Suc (Suc (Suc 0))))"
  unfolding ts_parse_row_1053_def by simp

text \<open>Lines 172862 to 172965.\<close>

definition ts_parse_row_1054 :: parse_row where
  "ts_parse_row_1054 =
    [(sym_ERR_assign_func_call, 7530), (sym_ERR_unexpected_this_in_path, 2372),
     (sym_ERR_unexpected_super_in_path, 2372), (sym_ERR_var_access_not_allowed, 3196),
     (sym_ERR_var_config_not_allowed, 3196), (sym_ERR_var_external_not_allowed, 3196),
     (sym_ERR_var_global_not_allowed, 3196), (sym_ERR_method_decl_in_body, 3150),
     (sym_extern_pragma, 7490), (sym_wasm_pragma, 3150), (sym_warn_pragma, 7490),
     (sym_allow_pragma, 3140), (sym_test_pragma, 7490), (sym_once_pragma, 7490),
     (sym_must_call_pragma, 7490), (sym_export_pragma, 7490), (sym_pou_pragma, 7194),
     (sym_direct_variable, 7675), (sym_deref_expression, 2373), (sym_variable, 7599),
     (sym_var_access, 2373), (sym_input_decls, 3196), (sym_output_decls, 3196),
     (sym_in_out_decls, 3196), (sym_var_decls, 3196), (sym_temp_var_decls, 3196),
     (sym_external_var_decls, 3197), (sym_global_var_decls, 2947), (sym_func_body, 10361),
     (sym_method_decl, 3159), (sym__method_decl_variables, 2368), (sym_prog_access_decls, 3043),
     (sym_config_init, 3047), (sym_variable_access, 7530), (sym_func_call, 2961),
     (sym_stmt_list, 8165), (sym__stmt, 2024), (sym_assign, 3150), (sym_if_stmt, 3150),
     (sym_case_stmt, 3150), (sym_for_stmt, 3150), (sym_while_stmt, 3150), (sym_repeat_stmt, 3150),
     (sym_raise_stmt, 3150), (sym_try_stmt, 3150), (sym_ERR_clause_outside_try, 3150),
     (sym_begin_path_expression, 2943), (sym_invocation, 2934), (sym_any_invocation, 2935),
     (sym_this_invocation, 2641), (sym_super_invocation, 2641), (sym_super_body_invocation, 2935),
     (sym_path_expression, 2627), (sym_field_expression, 2373), (sym_index_expression, 2373),
     (sym_ladder_diagram, 8165), (sym_fb_diagram, 8165), (aux_sym_func_decl_repeat1, 7194),
     (aux_sym_method_decl_repeat1, 2368), (aux_sym_stmt_list_repeat1, 2024),
     (aux_sym_ladder_diagram_repeat1, 7628), (aux_sym_fb_diagram_repeat1, 7633),
     (sym_identifier, 298), (aux_sym_ERR_unexpected_this_in_path_token1, 304),
     (aux_sym_ERR_unexpected_super_in_path_token1, 306), (sym_line_comment, 3),
     (anon_sym_LBRACE, 308), (aux_sym_test_pragma_token1, 9), (aux_sym_once_pragma_token1, 11),
     (aux_sym_must_call_pragma_token1, 13), (aux_sym_export_pragma_token1, 15),
     (anon_sym_SEMI, 310), (anon_sym_PERCENT, 312), (aux_sym_input_decls_token1, 2094),
     (aux_sym_output_decls_token1, 2096), (aux_sym_in_out_decls_token1, 318),
     (aux_sym_var_decls_token1, 2098), (aux_sym_temp_var_decls_token1, 322),
     (aux_sym_external_var_decls_token1, 324), (aux_sym_global_var_decls_token1, 326),
     (aux_sym_method_decl_token1, 330), (aux_sym_method_decl_token3, 2568),
     (aux_sym_prog_access_decls_token1, 332), (aux_sym_config_init_token1, 336),
     (aux_sym__stmt_token1, 340), (aux_sym__stmt_token2, 340), (aux_sym__stmt_token3, 340),
     (aux_sym_if_stmt_token1, 342), (aux_sym_case_stmt_token1, 344), (aux_sym_for_stmt_token1, 346),
     (aux_sym_while_stmt_token1, 348), (aux_sym_repeat_stmt_token1, 350),
     (aux_sym_raise_stmt_token1, 352), (aux_sym_try_stmt_token1, 354),
     (aux_sym_try_stmt_token2, 356), (aux_sym_catch_clause_token1, 356),
     (aux_sym_finally_clause_token1, 356), (sym_ld_rung, 2102), (sym_fbd_network, 2104),
     (sym_c_style_comment, 3), (sym_pascal_style_comment, 3), (sym_pragma, 3)]"

lemma ts_parse_row_1054_scan: "row_scan tokens_63_2 0 ts_parse_row_1054 = Some (Suc (Suc (Suc (Suc 0))))"
  unfolding ts_parse_row_1054_def by simp

text \<open>Lines 172966 to 173069.\<close>

definition ts_parse_row_1055 :: parse_row where
  "ts_parse_row_1055 =
    [(sym_ERR_assign_func_call, 7530), (sym_ERR_unexpected_this_in_path, 2372),
     (sym_ERR_unexpected_super_in_path, 2372), (sym_ERR_var_access_not_allowed, 3196),
     (sym_ERR_var_config_not_allowed, 3196), (sym_ERR_var_external_not_allowed, 3196),
     (sym_ERR_var_global_not_allowed, 3196), (sym_ERR_method_decl_in_body, 3150),
     (sym_extern_pragma, 7490), (sym_wasm_pragma, 3150), (sym_warn_pragma, 7490),
     (sym_allow_pragma, 3140), (sym_test_pragma, 7490), (sym_once_pragma, 7490),
     (sym_must_call_pragma, 7490), (sym_export_pragma, 7490), (sym_pou_pragma, 7194),
     (sym_direct_variable, 7675), (sym_deref_expression, 2373), (sym_variable, 7599),
     (sym_var_access, 2373), (sym_input_decls, 3196), (sym_output_decls, 3196),
     (sym_in_out_decls, 3196), (sym_var_decls, 3196), (sym_temp_var_decls, 3196),
     (sym_external_var_decls, 3197), (sym_global_var_decls, 2947), (sym_func_body, 10365),
     (sym_method_decl, 3159), (sym__method_decl_variables, 2368), (sym_prog_access_decls, 3043),
     (sym_config_init, 3047), (sym_variable_access, 7530), (sym_func_call, 2961),
     (sym_stmt_list, 8165), (sym__stmt, 2024), (sym_assign, 3150), (sym_if_stmt, 3150),
     (sym_case_stmt, 3150), (sym_for_stmt, 3150), (sym_while_stmt, 3150), (sym_repeat_stmt, 3150),
     (sym_raise_stmt, 3150), (sym_try_stmt, 3150), (sym_ERR_clause_outside_try, 3150),
     (sym_begin_path_expression, 2943), (sym_invocation, 2934), (sym_any_invocation, 2935),
     (sym_this_invocation, 2641), (sym_super_invocation, 2641), (sym_super_body_invocation, 2935),
     (sym_path_expression, 2627), (sym_field_expression, 2373), (sym_index_expression, 2373),
     (sym_ladder_diagram, 8165), (sym_fb_diagram, 8165), (aux_sym_func_decl_repeat1, 7194),
     (aux_sym_method_decl_repeat1, 2368), (aux_sym_stmt_list_repeat1, 2024),
     (aux_sym_ladder_diagram_repeat1, 7628), (aux_sym_fb_diagram_repeat1, 7633),
     (sym_identifier, 298), (aux_sym_ERR_unexpected_this_in_path_token1, 304),
     (aux_sym_ERR_unexpected_super_in_path_token1, 306), (sym_line_comment, 3),
     (anon_sym_LBRACE, 308), (aux_sym_test_pragma_token1, 9), (aux_sym_once_pragma_token1, 11),
     (aux_sym_must_call_pragma_token1, 13), (aux_sym_export_pragma_token1, 15),
     (anon_sym_SEMI, 310), (anon_sym_PERCENT, 312), (aux_sym_input_decls_token1, 2094),
     (aux_sym_output_decls_token1, 2096), (aux_sym_in_out_decls_token1, 318),
     (aux_sym_var_decls_token1, 2098), (aux_sym_temp_var_decls_token1, 322),
     (aux_sym_external_var_decls_token1, 324), (aux_sym_global_var_decls_token1, 326),
     (aux_sym_method_decl_token1, 330), (aux_sym_method_decl_token3, 2570),
     (aux_sym_prog_access_decls_token1, 332), (aux_sym_config_init_token1, 336),
     (aux_sym__stmt_token1, 340), (aux_sym__stmt_token2, 340), (aux_sym__stmt_token3, 340),
     (aux_sym_if_stmt_token1, 342), (aux_sym_case_stmt_token1, 344), (aux_sym_for_stmt_token1, 346),
     (aux_sym_while_stmt_token1, 348), (aux_sym_repeat_stmt_token1, 350),
     (aux_sym_raise_stmt_token1, 352), (aux_sym_try_stmt_token1, 354),
     (aux_sym_try_stmt_token2, 356), (aux_sym_catch_clause_token1, 356),
     (aux_sym_finally_clause_token1, 356), (sym_ld_rung, 2102), (sym_fbd_network, 2104),
     (sym_c_style_comment, 3), (sym_pascal_style_comment, 3), (sym_pragma, 3)]"

lemma ts_parse_row_1055_scan: "row_scan tokens_63_2 0 ts_parse_row_1055 = Some (Suc (Suc (Suc (Suc 0))))"
  unfolding ts_parse_row_1055_def by simp

text \<open>Lines 173070 to 173173.\<close>

definition ts_parse_row_1056 :: parse_row where
  "ts_parse_row_1056 =
    [(sym_ERR_assign_func_call, 7530), (sym_ERR_unexpected_this_in_path, 2372),
     (sym_ERR_unexpected_super_in_path, 2372), (sym_ERR_var_access_not_allowed, 3196),
     (sym_ERR_var_config_not_allowed, 3196), (sym_ERR_var_external_not_allowed, 3196),
     (sym_ERR_var_global_not_allowed, 3196), (sym_ERR_method_decl_in_body, 3150),
     (sym_extern_pragma, 7490), (sym_wasm_pragma, 3150), (sym_warn_pragma, 7490),
     (sym_allow_pragma, 3140), (sym_test_pragma, 7490), (sym_once_pragma, 7490),
     (sym_must_call_pragma, 7490), (sym_export_pragma, 7490), (sym_pou_pragma, 7194),
     (sym_direct_variable, 7675), (sym_deref_expression, 2373), (sym_variable, 7599),
     (sym_var_access, 2373), (sym_input_decls, 3196), (sym_output_decls, 3196),
     (sym_in_out_decls, 3196), (sym_var_decls, 3196), (sym_temp_var_decls, 3196),
     (sym_external_var_decls, 3197), (sym_global_var_decls, 2947), (sym_func_body, 10367),
     (sym_method_decl, 3159), (sym__method_decl_variables, 2368), (sym_prog_access_decls, 3043),
     (sym_config_init, 3047), (sym_variable_access, 7530), (sym_func_call, 2961),
     (sym_stmt_list, 8165), (sym__stmt, 2024), (sym_assign, 3150), (sym_if_stmt, 3150),
     (sym_case_stmt, 3150), (sym_for_stmt, 3150), (sym_while_stmt, 3150), (sym_repeat_stmt, 3150),
     (sym_raise_stmt, 3150), (sym_try_stmt, 3150), (sym_ERR_clause_outside_try, 3150),
     (sym_begin_path_expression, 2943), (sym_invocation, 2934), (sym_any_invocation, 2935),
     (sym_this_invocation, 2641), (sym_super_invocation, 2641), (sym_super_body_invocation, 2935),
     (sym_path_expression, 2627), (sym_field_expression, 2373), (sym_index_expression, 2373),
     (sym_ladder_diagram, 8165), (sym_fb_diagram, 8165), (aux_sym_func_decl_repeat1, 7194),
     (aux_sym_method_decl_repeat1, 2368), (aux_sym_stmt_list_repeat1, 2024),
     (aux_sym_ladder_diagram_repeat1, 7628), (aux_sym_fb_diagram_repeat1, 7633),
     (sym_identifier, 298), (aux_sym_ERR_unexpected_this_in_path_token1, 304),
     (aux_sym_ERR_unexpected_super_in_path_token1, 306), (sym_line_comment, 3),
     (anon_sym_LBRACE, 308), (aux_sym_test_pragma_token1, 9), (aux_sym_once_pragma_token1, 11),
     (aux_sym_must_call_pragma_token1, 13), (aux_sym_export_pragma_token1, 15),
     (anon_sym_SEMI, 310), (anon_sym_PERCENT, 312), (aux_sym_input_decls_token1, 2094),
     (aux_sym_output_decls_token1, 2096), (aux_sym_in_out_decls_token1, 318),
     (aux_sym_var_decls_token1, 2098), (aux_sym_temp_var_decls_token1, 322),
     (aux_sym_external_var_decls_token1, 324), (aux_sym_global_var_decls_token1, 326),
     (aux_sym_method_decl_token1, 330), (aux_sym_method_decl_token3, 2572),
     (aux_sym_prog_access_decls_token1, 332), (aux_sym_config_init_token1, 336),
     (aux_sym__stmt_token1, 340), (aux_sym__stmt_token2, 340), (aux_sym__stmt_token3, 340),
     (aux_sym_if_stmt_token1, 342), (aux_sym_case_stmt_token1, 344), (aux_sym_for_stmt_token1, 346),
     (aux_sym_while_stmt_token1, 348), (aux_sym_repeat_stmt_token1, 350),
     (aux_sym_raise_stmt_token1, 352), (aux_sym_try_stmt_token1, 354),
     (aux_sym_try_stmt_token2, 356), (aux_sym_catch_clause_token1, 356),
     (aux_sym_finally_clause_token1, 356), (sym_ld_rung, 2102), (sym_fbd_network, 2104),
     (sym_c_style_comment, 3), (sym_pascal_style_comment, 3), (sym_pragma, 3)]"

lemma ts_parse_row_1056_scan: "row_scan tokens_63_2 0 ts_parse_row_1056 = Some (Suc (Suc (Suc (Suc 0))))"
  unfolding ts_parse_row_1056_def by simp

text \<open>Lines 173174 to 173277.\<close>

definition ts_parse_row_1057 :: parse_row where
  "ts_parse_row_1057 =
    [(sym_ERR_assign_func_call, 7530), (sym_ERR_unexpected_this_in_path, 2372),
     (sym_ERR_unexpected_super_in_path, 2372), (sym_ERR_var_access_not_allowed, 3196),
     (sym_ERR_var_config_not_allowed, 3196), (sym_ERR_var_external_not_allowed, 3196),
     (sym_ERR_var_global_not_allowed, 3196), (sym_ERR_method_decl_in_body, 3150),
     (sym_extern_pragma, 7490), (sym_wasm_pragma, 3150), (sym_warn_pragma, 7490),
     (sym_allow_pragma, 3140), (sym_test_pragma, 7490), (sym_once_pragma, 7490),
     (sym_must_call_pragma, 7490), (sym_export_pragma, 7490), (sym_pou_pragma, 7194),
     (sym_direct_variable, 7675), (sym_deref_expression, 2373), (sym_variable, 7599),
     (sym_var_access, 2373), (sym_input_decls, 3196), (sym_output_decls, 3196),
     (sym_in_out_decls, 3196), (sym_var_decls, 3196), (sym_temp_var_decls, 3196),
     (sym_external_var_decls, 3197), (sym_global_var_decls, 2947), (sym_func_body, 10368),
     (sym_method_decl, 3159), (sym__method_decl_variables, 1070), (sym_prog_access_decls, 3043),
     (sym_config_init, 3047), (sym_variable_access, 7530), (sym_func_call, 2961),
     (sym_stmt_list, 8165), (sym__stmt, 2024), (sym_assign, 3150), (sym_if_stmt, 3150),
     (sym_case_stmt, 3150), (sym_for_stmt, 3150), (sym_while_stmt, 3150), (sym_repeat_stmt, 3150),
     (sym_raise_stmt, 3150), (sym_try_stmt, 3150), (sym_ERR_clause_outside_try, 3150),
     (sym_begin_path_expression, 2943), (sym_invocation, 2934), (sym_any_invocation, 2935),
     (sym_this_invocation, 2641), (sym_super_invocation, 2641), (sym_super_body_invocation, 2935),
     (sym_path_expression, 2627), (sym_field_expression, 2373), (sym_index_expression, 2373),
     (sym_ladder_diagram, 8165), (sym_fb_diagram, 8165), (aux_sym_func_decl_repeat1, 7194),
     (aux_sym_method_decl_repeat1, 1070), (aux_sym_stmt_list_repeat1, 2024),
     (aux_sym_ladder_diagram_repeat1, 7628), (aux_sym_fb_diagram_repeat1, 7633),
     (sym_identifier, 298), (aux_sym_ERR_unexpected_this_in_path_token1, 304),
     (aux_sym_ERR_unexpected_super_in_path_token1, 306), (sym_line_comment, 3),
     (anon_sym_LBRACE, 308), (aux_sym_test_pragma_token1, 9), (aux_sym_once_pragma_token1, 11),
     (aux_sym_must_call_pragma_token1, 13), (aux_sym_export_pragma_token1, 15),
     (anon_sym_SEMI, 310), (anon_sym_PERCENT, 312), (aux_sym_input_decls_token1, 2094),
     (aux_sym_output_decls_token1, 2096), (aux_sym_in_out_decls_token1, 318),
     (aux_sym_var_decls_token1, 2098), (aux_sym_temp_var_decls_token1, 322),
     (aux_sym_external_var_decls_token1, 324), (aux_sym_global_var_decls_token1, 326),
     (aux_sym_method_decl_token1, 330), (aux_sym_method_decl_token3, 2574),
     (aux_sym_prog_access_decls_token1, 332), (aux_sym_config_init_token1, 336),
     (aux_sym__stmt_token1, 340), (aux_sym__stmt_token2, 340), (aux_sym__stmt_token3, 340),
     (aux_sym_if_stmt_token1, 342), (aux_sym_case_stmt_token1, 344), (aux_sym_for_stmt_token1, 346),
     (aux_sym_while_stmt_token1, 348), (aux_sym_repeat_stmt_token1, 350),
     (aux_sym_raise_stmt_token1, 352), (aux_sym_try_stmt_token1, 354),
     (aux_sym_try_stmt_token2, 356), (aux_sym_catch_clause_token1, 356),
     (aux_sym_finally_clause_token1, 356), (sym_ld_rung, 2102), (sym_fbd_network, 2104),
     (sym_c_style_comment, 3), (sym_pascal_style_comment, 3), (sym_pragma, 3)]"

lemma ts_parse_row_1057_scan: "row_scan tokens_63_2 0 ts_parse_row_1057 = Some (Suc (Suc (Suc (Suc 0))))"
  unfolding ts_parse_row_1057_def by simp

text \<open>Lines 173278 to 173381.\<close>

definition ts_parse_row_1058 :: parse_row where
  "ts_parse_row_1058 =
    [(sym_ERR_assign_func_call, 7530), (sym_ERR_unexpected_this_in_path, 2372),
     (sym_ERR_unexpected_super_in_path, 2372), (sym_ERR_var_access_not_allowed, 3196),
     (sym_ERR_var_config_not_allowed, 3196), (sym_ERR_var_external_not_allowed, 3196),
     (sym_ERR_var_global_not_allowed, 3196), (sym_ERR_method_decl_in_body, 3150),
     (sym_extern_pragma, 7490), (sym_wasm_pragma, 3150), (sym_warn_pragma, 7490),
     (sym_allow_pragma, 3140), (sym_test_pragma, 7490), (sym_once_pragma, 7490),
     (sym_must_call_pragma, 7490), (sym_export_pragma, 7490), (sym_pou_pragma, 7194),
     (sym_direct_variable, 7675), (sym_deref_expression, 2373), (sym_variable, 7599),
     (sym_var_access, 2373), (sym_input_decls, 3196), (sym_output_decls, 3196),
     (sym_in_out_decls, 3196), (sym_var_decls, 3196), (sym_temp_var_decls, 3196),
     (sym_external_var_decls, 3197), (sym_global_var_decls, 2947), (sym_func_body, 10373),
     (sym_method_decl, 3159), (sym__method_decl_variables, 2368), (sym_prog_access_decls, 3043),
     (sym_config_init, 3047), (sym_variable_access, 7530), (sym_func_call, 2961),
     (sym_stmt_list, 8165), (sym__stmt, 2024), (sym_assign, 3150), (sym_if_stmt, 3150),
     (sym_case_stmt, 3150), (sym_for_stmt, 3150), (sym_while_stmt, 3150), (sym_repeat_stmt, 3150),
     (sym_raise_stmt, 3150), (sym_try_stmt, 3150), (sym_ERR_clause_outside_try, 3150),
     (sym_begin_path_expression, 2943), (sym_invocation, 2934), (sym_any_invocation, 2935),
     (sym_this_invocation, 2641), (sym_super_invocation, 2641), (sym_super_body_invocation, 2935),
     (sym_path_expression, 2627), (sym_field_expression, 2373), (sym_index_expression, 2373),
     (sym_ladder_diagram, 8165), (sym_fb_diagram, 8165), (aux_sym_func_decl_repeat1, 7194),
     (aux_sym_method_decl_repeat1, 2368), (aux_sym_stmt_list_repeat1, 2024),
     (aux_sym_ladder_diagram_repeat1, 7628), (aux_sym_fb_diagram_repeat1, 7633),
     (sym_identifier, 298), (aux_sym_ERR_unexpected_this_in_path_token1, 304),
     (aux_sym_ERR_unexpected_super_in_path_token1, 306), (sym_line_comment, 3),
     (anon_sym_LBRACE, 308), (aux_sym_test_pragma_token1, 9), (aux_sym_once_pragma_token1, 11),
     (aux_sym_must_call_pragma_token1, 13), (aux_sym_export_pragma_token1, 15),
     (anon_sym_SEMI, 310), (anon_sym_PERCENT, 312), (aux_sym_input_decls_token1, 2094),
     (aux_sym_output_decls_token1, 2096), (aux_sym_in_out_decls_token1, 318),
     (aux_sym_var_decls_token1, 2098), (aux_sym_temp_var_decls_token1, 322),
     (aux_sym_external_var_decls_token1, 324), (aux_sym_global_var_decls_token1, 326),
     (aux_sym_method_decl_token1, 330), (aux_sym_method_decl_token3, 2576),
     (aux_sym_prog_access_decls_token1, 332), (aux_sym_config_init_token1, 336),
     (aux_sym__stmt_token1, 340), (aux_sym__stmt_token2, 340), (aux_sym__stmt_token3, 340),
     (aux_sym_if_stmt_token1, 342), (aux_sym_case_stmt_token1, 344), (aux_sym_for_stmt_token1, 346),
     (aux_sym_while_stmt_token1, 348), (aux_sym_repeat_stmt_token1, 350),
     (aux_sym_raise_stmt_token1, 352), (aux_sym_try_stmt_token1, 354),
     (aux_sym_try_stmt_token2, 356), (aux_sym_catch_clause_token1, 356),
     (aux_sym_finally_clause_token1, 356), (sym_ld_rung, 2102), (sym_fbd_network, 2104),
     (sym_c_style_comment, 3), (sym_pascal_style_comment, 3), (sym_pragma, 3)]"

lemma ts_parse_row_1058_scan: "row_scan tokens_63_2 0 ts_parse_row_1058 = Some (Suc (Suc (Suc (Suc 0))))"
  unfolding ts_parse_row_1058_def by simp

text \<open>Lines 173382 to 173485.\<close>

definition ts_parse_row_1059 :: parse_row where
  "ts_parse_row_1059 =
    [(sym_ERR_assign_func_call, 7530), (sym_ERR_unexpected_this_in_path, 2372),
     (sym_ERR_unexpected_super_in_path, 2372), (sym_ERR_var_access_not_allowed, 3196),
     (sym_ERR_var_config_not_allowed, 3196), (sym_ERR_var_external_not_allowed, 3196),
     (sym_ERR_var_global_not_allowed, 3196), (sym_ERR_method_decl_in_body, 3150),
     (sym_extern_pragma, 7490), (sym_wasm_pragma, 3150), (sym_warn_pragma, 7490),
     (sym_allow_pragma, 3140), (sym_test_pragma, 7490), (sym_once_pragma, 7490),
     (sym_must_call_pragma, 7490), (sym_export_pragma, 7490), (sym_pou_pragma, 7194),
     (sym_direct_variable, 7675), (sym_deref_expression, 2373), (sym_variable, 7599),
     (sym_var_access, 2373), (sym_input_decls, 3196), (sym_output_decls, 3196),
     (sym_in_out_decls, 3196), (sym_var_decls, 3196), (sym_temp_var_decls, 3196),
     (sym_external_var_decls, 3197), (sym_global_var_decls, 2947), (sym_func_body, 10375),
     (sym_method_decl, 3159), (sym__method_decl_variables, 2368), (sym_prog_access_decls, 3043),
     (sym_config_init, 3047), (sym_variable_access, 7530), (sym_func_call, 2961),
     (sym_stmt_list, 8165), (sym__stmt, 2024), (sym_assign, 3150), (sym_if_stmt, 3150),
     (sym_case_stmt, 3150), (sym_for_stmt, 3150), (sym_while_stmt, 3150), (sym_repeat_stmt, 3150),
     (sym_raise_stmt, 3150), (sym_try_stmt, 3150), (sym_ERR_clause_outside_try, 3150),
     (sym_begin_path_expression, 2943), (sym_invocation, 2934), (sym_any_invocation, 2935),
     (sym_this_invocation, 2641), (sym_super_invocation, 2641), (sym_super_body_invocation, 2935),
     (sym_path_expression, 2627), (sym_field_expression, 2373), (sym_index_expression, 2373),
     (sym_ladder_diagram, 8165), (sym_fb_diagram, 8165), (aux_sym_func_decl_repeat1, 7194),
     (aux_sym_method_decl_repeat1, 2368), (aux_sym_stmt_list_repeat1, 2024),
     (aux_sym_ladder_diagram_repeat1, 7628), (aux_sym_fb_diagram_repeat1, 7633),
     (sym_identifier, 298), (aux_sym_ERR_unexpected_this_in_path_token1, 304),
     (aux_sym_ERR_unexpected_super_in_path_token1, 306), (sym_line_comment, 3),
     (anon_sym_LBRACE, 308), (aux_sym_test_pragma_token1, 9), (aux_sym_once_pragma_token1, 11),
     (aux_sym_must_call_pragma_token1, 13), (aux_sym_export_pragma_token1, 15),
     (anon_sym_SEMI, 310), (anon_sym_PERCENT, 312), (aux_sym_input_decls_token1, 2094),
     (aux_sym_output_decls_token1, 2096), (aux_sym_in_out_decls_token1, 318),
     (aux_sym_var_decls_token1, 2098), (aux_sym_temp_var_decls_token1, 322),
     (aux_sym_external_var_decls_token1, 324), (aux_sym_global_var_decls_token1, 326),
     (aux_sym_method_decl_token1, 330), (aux_sym_method_decl_token3, 2578),
     (aux_sym_prog_access_decls_token1, 332), (aux_sym_config_init_token1, 336),
     (aux_sym__stmt_token1, 340), (aux_sym__stmt_token2, 340), (aux_sym__stmt_token3, 340),
     (aux_sym_if_stmt_token1, 342), (aux_sym_case_stmt_token1, 344), (aux_sym_for_stmt_token1, 346),
     (aux_sym_while_stmt_token1, 348), (aux_sym_repeat_stmt_token1, 350),
     (aux_sym_raise_stmt_token1, 352), (aux_sym_try_stmt_token1, 354),
     (aux_sym_try_stmt_token2, 356), (aux_sym_catch_clause_token1, 356),
     (aux_sym_finally_clause_token1, 356), (sym_ld_rung, 2102), (sym_fbd_network, 2104),
     (sym_c_style_comment, 3), (sym_pascal_style_comment, 3), (sym_pragma, 3)]"

lemma ts_parse_row_1059_scan: "row_scan tokens_63_2 0 ts_parse_row_1059 = Some (Suc (Suc (Suc (Suc 0))))"
  unfolding ts_parse_row_1059_def by simp

text \<open>Lines 173486 to 173589.\<close>

definition ts_parse_row_1060 :: parse_row where
  "ts_parse_row_1060 =
    [(sym_ERR_assign_func_call, 7530), (sym_ERR_unexpected_this_in_path, 2372),
     (sym_ERR_unexpected_super_in_path, 2372), (sym_ERR_var_access_not_allowed, 3196),
     (sym_ERR_var_config_not_allowed, 3196), (sym_ERR_var_external_not_allowed, 3196),
     (sym_ERR_var_global_not_allowed, 3196), (sym_ERR_method_decl_in_body, 3150),
     (sym_extern_pragma, 7490), (sym_wasm_pragma, 3150), (sym_warn_pragma, 7490),
     (sym_allow_pragma, 3140), (sym_test_pragma, 7490), (sym_once_pragma, 7490),
     (sym_must_call_pragma, 7490), (sym_export_pragma, 7490), (sym_pou_pragma, 7194),
     (sym_direct_variable, 7675), (sym_deref_expression, 2373), (sym_variable, 7599),
     (sym_var_access, 2373), (sym_input_decls, 3196), (sym_output_decls, 3196),
     (sym_in_out_decls, 3196), (sym_var_decls, 3196), (sym_temp_var_decls, 3196),
     (sym_external_var_decls, 3197), (sym_global_var_decls, 2947), (sym_func_body, 10376),
     (sym_method_decl, 3159), (sym__method_decl_variables, 1074), (sym_prog_access_decls, 3043),
     (sym_config_init, 3047), (sym_variable_access, 7530), (sym_func_call, 2961),
     (sym_stmt_list, 8165), (sym__stmt, 2024), (sym_assign, 3150), (sym_if_stmt, 3150),
     (sym_case_stmt, 3150), (sym_for_stmt, 3150), (sym_while_stmt, 3150), (sym_repeat_stmt, 3150),
     (sym_raise_stmt, 3150), (sym_try_stmt, 3150), (sym_ERR_clause_outside_try, 3150),
     (sym_begin_path_expression, 2943), (sym_invocation, 2934), (sym_any_invocation, 2935),
     (sym_this_invocation, 2641), (sym_super_invocation, 2641), (sym_super_body_invocation, 2935),
     (sym_path_expression, 2627), (sym_field_expression, 2373), (sym_index_expression, 2373),
     (sym_ladder_diagram, 8165), (sym_fb_diagram, 8165), (aux_sym_func_decl_repeat1, 7194),
     (aux_sym_method_decl_repeat1, 1074), (aux_sym_stmt_list_repeat1, 2024),
     (aux_sym_ladder_diagram_repeat1, 7628), (aux_sym_fb_diagram_repeat1, 7633),
     (sym_identifier, 298), (aux_sym_ERR_unexpected_this_in_path_token1, 304),
     (aux_sym_ERR_unexpected_super_in_path_token1, 306), (sym_line_comment, 3),
     (anon_sym_LBRACE, 308), (aux_sym_test_pragma_token1, 9), (aux_sym_once_pragma_token1, 11),
     (aux_sym_must_call_pragma_token1, 13), (aux_sym_export_pragma_token1, 15),
     (anon_sym_SEMI, 310), (anon_sym_PERCENT, 312), (aux_sym_input_decls_token1, 2094),
     (aux_sym_output_decls_token1, 2096), (aux_sym_in_out_decls_token1, 318),
     (aux_sym_var_decls_token1, 2098), (aux_sym_temp_var_decls_token1, 322),
     (aux_sym_external_var_decls_token1, 324), (aux_sym_global_var_decls_token1, 326),
     (aux_sym_method_decl_token1, 330), (aux_sym_method_decl_token3, 2580),
     (aux_sym_prog_access_decls_token1, 332), (aux_sym_config_init_token1, 336),
     (aux_sym__stmt_token1, 340), (aux_sym__stmt_token2, 340), (aux_sym__stmt_token3, 340),
     (aux_sym_if_stmt_token1, 342), (aux_sym_case_stmt_token1, 344), (aux_sym_for_stmt_token1, 346),
     (aux_sym_while_stmt_token1, 348), (aux_sym_repeat_stmt_token1, 350),
     (aux_sym_raise_stmt_token1, 352), (aux_sym_try_stmt_token1, 354),
     (aux_sym_try_stmt_token2, 356), (aux_sym_catch_clause_token1, 356),
     (aux_sym_finally_clause_token1, 356), (sym_ld_rung, 2102), (sym_fbd_network, 2104),
     (sym_c_style_comment, 3), (sym_pascal_style_comment, 3), (sym_pragma, 3)]"

lemma ts_parse_row_1060_scan: "row_scan tokens_63_2 0 ts_parse_row_1060 = Some (Suc (Suc (Suc (Suc 0))))"
  unfolding ts_parse_row_1060_def by simp

text \<open>Lines 173590 to 173693.\<close>

definition ts_parse_row_1061 :: parse_row where
  "ts_parse_row_1061 =
    [(sym_ERR_assign_func_call, 7530), (sym_ERR_unexpected_this_in_path, 2372),
     (sym_ERR_unexpected_super_in_path, 2372), (sym_ERR_var_access_not_allowed, 3266),
     (sym_ERR_var_config_not_allowed, 3266), (sym_ERR_var_external_not_allowed, 3266),
     (sym_ERR_var_global_not_allowed, 3266), (sym_ERR_method_decl_in_body, 3150),
     (sym_extern_pragma, 7490), (sym_wasm_pragma, 3150), (sym_warn_pragma, 7490),
     (sym_allow_pragma, 3140), (sym_test_pragma, 7490), (sym_once_pragma, 7490),
     (sym_must_call_pragma, 7490), (sym_export_pragma, 7490), (sym_pou_pragma, 7194),
     (sym_direct_variable, 7675), (sym_deref_expression, 2373), (sym_variable, 7599),
     (sym_var_access, 2373), (sym_input_decls, 3266), (sym_output_decls, 3266),
     (sym_in_out_decls, 3266), (sym_var_decls, 3266), (sym_temp_var_decls, 3266),
     (sym_external_var_decls, 3248), (sym_global_var_decls, 2947), (sym__func_variables, 2367),
     (sym_func_body, 9920), (sym_method_decl, 3159), (sym_prog_access_decls, 3043),
     (sym_config_init, 3047), (sym_variable_access, 7530), (sym_func_call, 2961),
     (sym_stmt_list, 8165), (sym__stmt, 2024), (sym_assign, 3150), (sym_if_stmt, 3150),
     (sym_case_stmt, 3150), (sym_for_stmt, 3150), (sym_while_stmt, 3150), (sym_repeat_stmt, 3150),
     (sym_raise_stmt, 3150), (sym_try_stmt, 3150), (sym_ERR_clause_outside_try, 3150),
     (sym_begin_path_expression, 2943), (sym_invocation, 2934), (sym_any_invocation, 2935),
     (sym_this_invocation, 2641), (sym_super_invocation, 2641), (sym_super_body_invocation, 2935),
     (sym_path_expression, 2627), (sym_field_expression, 2373), (sym_index_expression, 2373),
     (sym_ladder_diagram, 8165), (sym_fb_diagram, 8165), (aux_sym_func_decl_repeat1, 7194),
     (aux_sym_func_decl_repeat3, 2367), (aux_sym_stmt_list_repeat1, 2024),
     (aux_sym_ladder_diagram_repeat1, 7628), (aux_sym_fb_diagram_repeat1, 7633),
     (sym_identifier, 298), (aux_sym_ERR_unexpected_this_in_path_token1, 304),
     (aux_sym_ERR_unexpected_super_in_path_token1, 306), (sym_line_comment, 3),
     (anon_sym_LBRACE, 308), (aux_sym_test_pragma_token1, 9), (aux_sym_once_pragma_token1, 11),
     (aux_sym_must_call_pragma_token1, 13), (aux_sym_export_pragma_token1, 15),
     (anon_sym_SEMI, 310), (anon_sym_PERCENT, 312), (aux_sym_input_decls_token1, 2094),
     (aux_sym_output_decls_token1, 2096), (aux_sym_in_out_decls_token1, 318),
     (aux_sym_var_decls_token1, 2098), (aux_sym_temp_var_decls_token1, 322),
     (aux_sym_external_var_decls_token1, 324), (aux_sym_global_var_decls_token1, 326),
     (aux_sym_func_decl_token2, 2582), (aux_sym_method_decl_token1, 330),
     (aux_sym_prog_access_decls_token1, 332), (aux_sym_config_init_token1, 336),
     (aux_sym__stmt_token1, 340), (aux_sym__stmt_token2, 340), (aux_sym__stmt_token3, 340),
     (aux_sym_if_stmt_token1, 342), (aux_sym_case_stmt_token1, 344), (aux_sym_for_stmt_token1, 346),
     (aux_sym_while_stmt_token1, 348), (aux_sym_repeat_stmt_token1, 350),
     (aux_sym_raise_stmt_token1, 352), (aux_sym_try_stmt_token1, 354),
     (aux_sym_try_stmt_token2, 356), (aux_sym_catch_clause_token1, 356),
     (aux_sym_finally_clause_token1, 356), (sym_ld_rung, 2102), (sym_fbd_network, 2104),
     (sym_c_style_comment, 3), (sym_pascal_style_comment, 3), (sym_pragma, 3)]"

lemma ts_parse_row_1061_scan: "row_scan tokens_63_2 0 ts_parse_row_1061 = Some (Suc (Suc (Suc (Suc 0))))"
  unfolding ts_parse_row_1061_def by simp

text \<open>Lines 173694 to 173797.\<close>

definition ts_parse_row_1062 :: parse_row where
  "ts_parse_row_1062 =
    [(sym_ERR_assign_func_call, 7530), (sym_ERR_unexpected_this_in_path, 2372),
     (sym_ERR_unexpected_super_in_path, 2372), (sym_ERR_var_access_not_allowed, 3196),
     (sym_ERR_var_config_not_allowed, 3196), (sym_ERR_var_external_not_allowed, 3196),
     (sym_ERR_var_global_not_allowed, 3196), (sym_ERR_method_decl_in_body, 3150),
     (sym_extern_pragma, 7490), (sym_wasm_pragma, 3150), (sym_warn_pragma, 7490),
     (sym_allow_pragma, 3140), (sym_test_pragma, 7490), (sym_once_pragma, 7490),
     (sym_must_call_pragma, 7490), (sym_export_pragma, 7490), (sym_pou_pragma, 7194),
     (sym_direct_variable, 7675), (sym_deref_expression, 2373), (sym_variable, 7599),
     (sym_var_access, 2373), (sym_input_decls, 3196), (sym_output_decls, 3196),
     (sym_in_out_decls, 3196), (sym_var_decls, 3196), (sym_temp_var_decls, 3196),
     (sym_external_var_decls, 3197), (sym_global_var_decls, 2947), (sym_func_body, 10004),
     (sym_method_decl, 3159), (sym__method_decl_variables, 2368), (sym_prog_access_decls, 3043),
     (sym_config_init, 3047), (sym_variable_access, 7530), (sym_func_call, 2961),
     (sym_stmt_list, 8165), (sym__stmt, 2024), (sym_assign, 3150), (sym_if_stmt, 3150),
     (sym_case_stmt, 3150), (sym_for_stmt, 3150), (sym_while_stmt, 3150), (sym_repeat_stmt, 3150),
     (sym_raise_stmt, 3150), (sym_try_stmt, 3150), (sym_ERR_clause_outside_try, 3150),
     (sym_begin_path_expression, 2943), (sym_invocation, 2934), (sym_any_invocation, 2935),
     (sym_this_invocation, 2641), (sym_super_invocation, 2641), (sym_super_body_invocation, 2935),
     (sym_path_expression, 2627), (sym_field_expression, 2373), (sym_index_expression, 2373),
     (sym_ladder_diagram, 8165), (sym_fb_diagram, 8165), (aux_sym_func_decl_repeat1, 7194),
     (aux_sym_method_decl_repeat1, 2368), (aux_sym_stmt_list_repeat1, 2024),
     (aux_sym_ladder_diagram_repeat1, 7628), (aux_sym_fb_diagram_repeat1, 7633),
     (sym_identifier, 298), (aux_sym_ERR_unexpected_this_in_path_token1, 304),
     (aux_sym_ERR_unexpected_super_in_path_token1, 306), (sym_line_comment, 3),
     (anon_sym_LBRACE, 308), (aux_sym_test_pragma_token1, 9), (aux_sym_once_pragma_token1, 11),
     (aux_sym_must_call_pragma_token1, 13), (aux_sym_export_pragma_token1, 15),
     (anon_sym_SEMI, 310), (anon_sym_PERCENT, 312), (aux_sym_input_decls_token1, 2094),
     (aux_sym_output_decls_token1, 2096), (aux_sym_in_out_decls_token1, 318),
     (aux_sym_var_decls_token1, 2098), (aux_sym_temp_var_decls_token1, 322),
     (aux_sym_external_var_decls_token1, 324), (aux_sym_global_var_decls_token1, 326),
     (aux_sym_method_decl_token1, 330), (aux_sym_method_decl_token3, 2584),
     (aux_sym_prog_access_decls_token1, 332), (aux_sym_config_init_token1, 336),
     (aux_sym__stmt_token1, 340), (aux_sym__stmt_token2, 340), (aux_sym__stmt_token3, 340),
     (aux_sym_if_stmt_token1, 342), (aux_sym_case_stmt_token1, 344), (aux_sym_for_stmt_token1, 346),
     (aux_sym_while_stmt_token1, 348), (aux_sym_repeat_stmt_token1, 350),
     (aux_sym_raise_stmt_token1, 352), (aux_sym_try_stmt_token1, 354),
     (aux_sym_try_stmt_token2, 356), (aux_sym_catch_clause_token1, 356),
     (aux_sym_finally_clause_token1, 356), (sym_ld_rung, 2102), (sym_fbd_network, 2104),
     (sym_c_style_comment, 3), (sym_pascal_style_comment, 3), (sym_pragma, 3)]"

lemma ts_parse_row_1062_scan: "row_scan tokens_63_2 0 ts_parse_row_1062 = Some (Suc (Suc (Suc (Suc 0))))"
  unfolding ts_parse_row_1062_def by simp

text \<open>Lines 173798 to 173901.\<close>

definition ts_parse_row_1063 :: parse_row where
  "ts_parse_row_1063 =
    [(sym_ERR_assign_func_call, 7530), (sym_ERR_unexpected_this_in_path, 2372),
     (sym_ERR_unexpected_super_in_path, 2372), (sym_ERR_var_access_not_allowed, 3196),
     (sym_ERR_var_config_not_allowed, 3196), (sym_ERR_var_external_not_allowed, 3196),
     (sym_ERR_var_global_not_allowed, 3196), (sym_ERR_method_decl_in_body, 3150),
     (sym_extern_pragma, 7490), (sym_wasm_pragma, 3150), (sym_warn_pragma, 7490),
     (sym_allow_pragma, 3140), (sym_test_pragma, 7490), (sym_once_pragma, 7490),
     (sym_must_call_pragma, 7490), (sym_export_pragma, 7490), (sym_pou_pragma, 7194),
     (sym_direct_variable, 7675), (sym_deref_expression, 2373), (sym_variable, 7599),
     (sym_var_access, 2373), (sym_input_decls, 3196), (sym_output_decls, 3196),
     (sym_in_out_decls, 3196), (sym_var_decls, 3196), (sym_temp_var_decls, 3196),
     (sym_external_var_decls, 3197), (sym_global_var_decls, 2947), (sym_func_body, 10384),
     (sym_method_decl, 3159), (sym__method_decl_variables, 2368), (sym_prog_access_decls, 3043),
     (sym_config_init, 3047), (sym_variable_access, 7530), (sym_func_call, 2961),
     (sym_stmt_list, 8165), (sym__stmt, 2024), (sym_assign, 3150), (sym_if_stmt, 3150),
     (sym_case_stmt, 3150), (sym_for_stmt, 3150), (sym_while_stmt, 3150), (sym_repeat_stmt, 3150),
     (sym_raise_stmt, 3150), (sym_try_stmt, 3150), (sym_ERR_clause_outside_try, 3150),
     (sym_begin_path_expression, 2943), (sym_invocation, 2934), (sym_any_invocation, 2935),
     (sym_this_invocation, 2641), (sym_super_invocation, 2641), (sym_super_body_invocation, 2935),
     (sym_path_expression, 2627), (sym_field_expression, 2373), (sym_index_expression, 2373),
     (sym_ladder_diagram, 8165), (sym_fb_diagram, 8165), (aux_sym_func_decl_repeat1, 7194),
     (aux_sym_method_decl_repeat1, 2368), (aux_sym_stmt_list_repeat1, 2024),
     (aux_sym_ladder_diagram_repeat1, 7628), (aux_sym_fb_diagram_repeat1, 7633),
     (sym_identifier, 298), (aux_sym_ERR_unexpected_this_in_path_token1, 304),
     (aux_sym_ERR_unexpected_super_in_path_token1, 306), (sym_line_comment, 3),
     (anon_sym_LBRACE, 308), (aux_sym_test_pragma_token1, 9), (aux_sym_once_pragma_token1, 11),
     (aux_sym_must_call_pragma_token1, 13), (aux_sym_export_pragma_token1, 15),
     (anon_sym_SEMI, 310), (anon_sym_PERCENT, 312), (aux_sym_input_decls_token1, 2094),
     (aux_sym_output_decls_token1, 2096), (aux_sym_in_out_decls_token1, 318),
     (aux_sym_var_decls_token1, 2098), (aux_sym_temp_var_decls_token1, 322),
     (aux_sym_external_var_decls_token1, 324), (aux_sym_global_var_decls_token1, 326),
     (aux_sym_method_decl_token1, 330), (aux_sym_method_decl_token3, 2586),
     (aux_sym_prog_access_decls_token1, 332), (aux_sym_config_init_token1, 336),
     (aux_sym__stmt_token1, 340), (aux_sym__stmt_token2, 340), (aux_sym__stmt_token3, 340),
     (aux_sym_if_stmt_token1, 342), (aux_sym_case_stmt_token1, 344), (aux_sym_for_stmt_token1, 346),
     (aux_sym_while_stmt_token1, 348), (aux_sym_repeat_stmt_token1, 350),
     (aux_sym_raise_stmt_token1, 352), (aux_sym_try_stmt_token1, 354),
     (aux_sym_try_stmt_token2, 356), (aux_sym_catch_clause_token1, 356),
     (aux_sym_finally_clause_token1, 356), (sym_ld_rung, 2102), (sym_fbd_network, 2104),
     (sym_c_style_comment, 3), (sym_pascal_style_comment, 3), (sym_pragma, 3)]"

lemma ts_parse_row_1063_scan: "row_scan tokens_63_2 0 ts_parse_row_1063 = Some (Suc (Suc (Suc (Suc 0))))"
  unfolding ts_parse_row_1063_def by simp

text \<open>Lines 173902 to 174005.\<close>

definition ts_parse_row_1064 :: parse_row where
  "ts_parse_row_1064 =
    [(sym_ERR_assign_func_call, 7530), (sym_ERR_unexpected_this_in_path, 2372),
     (sym_ERR_unexpected_super_in_path, 2372), (sym_ERR_var_access_not_allowed, 3196),
     (sym_ERR_var_config_not_allowed, 3196), (sym_ERR_var_external_not_allowed, 3196),
     (sym_ERR_var_global_not_allowed, 3196), (sym_ERR_method_decl_in_body, 3150),
     (sym_extern_pragma, 7490), (sym_wasm_pragma, 3150), (sym_warn_pragma, 7490),
     (sym_allow_pragma, 3140), (sym_test_pragma, 7490), (sym_once_pragma, 7490),
     (sym_must_call_pragma, 7490), (sym_export_pragma, 7490), (sym_pou_pragma, 7194),
     (sym_direct_variable, 7675), (sym_deref_expression, 2373), (sym_variable, 7599),
     (sym_var_access, 2373), (sym_input_decls, 3196), (sym_output_decls, 3196),
     (sym_in_out_decls, 3196), (sym_var_decls, 3196), (sym_temp_var_decls, 3196),
     (sym_external_var_decls, 3197), (sym_global_var_decls, 2947), (sym_func_body, 10385),
     (sym_method_decl, 3159), (sym__method_decl_variables, 1079), (sym_prog_access_decls, 3043),
     (sym_config_init, 3047), (sym_variable_access, 7530), (sym_func_call, 2961),
     (sym_stmt_list, 8165), (sym__stmt, 2024), (sym_assign, 3150), (sym_if_stmt, 3150),
     (sym_case_stmt, 3150), (sym_for_stmt, 3150), (sym_while_stmt, 3150), (sym_repeat_stmt, 3150),
     (sym_raise_stmt, 3150), (sym_try_stmt, 3150), (sym_ERR_clause_outside_try, 3150),
     (sym_begin_path_expression, 2943), (sym_invocation, 2934), (sym_any_invocation, 2935),
     (sym_this_invocation, 2641), (sym_super_invocation, 2641), (sym_super_body_invocation, 2935),
     (sym_path_expression, 2627), (sym_field_expression, 2373), (sym_index_expression, 2373),
     (sym_ladder_diagram, 8165), (sym_fb_diagram, 8165), (aux_sym_func_decl_repeat1, 7194),
     (aux_sym_method_decl_repeat1, 1079), (aux_sym_stmt_list_repeat1, 2024),
     (aux_sym_ladder_diagram_repeat1, 7628), (aux_sym_fb_diagram_repeat1, 7633),
     (sym_identifier, 298), (aux_sym_ERR_unexpected_this_in_path_token1, 304),
     (aux_sym_ERR_unexpected_super_in_path_token1, 306), (sym_line_comment, 3),
     (anon_sym_LBRACE, 308), (aux_sym_test_pragma_token1, 9), (aux_sym_once_pragma_token1, 11),
     (aux_sym_must_call_pragma_token1, 13), (aux_sym_export_pragma_token1, 15),
     (anon_sym_SEMI, 310), (anon_sym_PERCENT, 312), (aux_sym_input_decls_token1, 2094),
     (aux_sym_output_decls_token1, 2096), (aux_sym_in_out_decls_token1, 318),
     (aux_sym_var_decls_token1, 2098), (aux_sym_temp_var_decls_token1, 322),
     (aux_sym_external_var_decls_token1, 324), (aux_sym_global_var_decls_token1, 326),
     (aux_sym_method_decl_token1, 330), (aux_sym_method_decl_token3, 2588),
     (aux_sym_prog_access_decls_token1, 332), (aux_sym_config_init_token1, 336),
     (aux_sym__stmt_token1, 340), (aux_sym__stmt_token2, 340), (aux_sym__stmt_token3, 340),
     (aux_sym_if_stmt_token1, 342), (aux_sym_case_stmt_token1, 344), (aux_sym_for_stmt_token1, 346),
     (aux_sym_while_stmt_token1, 348), (aux_sym_repeat_stmt_token1, 350),
     (aux_sym_raise_stmt_token1, 352), (aux_sym_try_stmt_token1, 354),
     (aux_sym_try_stmt_token2, 356), (aux_sym_catch_clause_token1, 356),
     (aux_sym_finally_clause_token1, 356), (sym_ld_rung, 2102), (sym_fbd_network, 2104),
     (sym_c_style_comment, 3), (sym_pascal_style_comment, 3), (sym_pragma, 3)]"

lemma ts_parse_row_1064_scan: "row_scan tokens_63_2 0 ts_parse_row_1064 = Some (Suc (Suc (Suc (Suc 0))))"
  unfolding ts_parse_row_1064_def by simp

text \<open>Lines 174006 to 174109.\<close>

definition ts_parse_row_1065 :: parse_row where
  "ts_parse_row_1065 =
    [(sym_ERR_assign_func_call, 7530), (sym_ERR_unexpected_this_in_path, 2372),
     (sym_ERR_unexpected_super_in_path, 2372), (sym_ERR_var_access_not_allowed, 3196),
     (sym_ERR_var_config_not_allowed, 3196), (sym_ERR_var_external_not_allowed, 3196),
     (sym_ERR_var_global_not_allowed, 3196), (sym_ERR_method_decl_in_body, 3150),
     (sym_extern_pragma, 7490), (sym_wasm_pragma, 3150), (sym_warn_pragma, 7490),
     (sym_allow_pragma, 3140), (sym_test_pragma, 7490), (sym_once_pragma, 7490),
     (sym_must_call_pragma, 7490), (sym_export_pragma, 7490), (sym_pou_pragma, 7194),
     (sym_direct_variable, 7675), (sym_deref_expression, 2373), (sym_variable, 7599),
     (sym_var_access, 2373), (sym_input_decls, 3196), (sym_output_decls, 3196),
     (sym_in_out_decls, 3196), (sym_var_decls, 3196), (sym_temp_var_decls, 3196),
     (sym_external_var_decls, 3197), (sym_global_var_decls, 2947), (sym_func_body, 10387),
     (sym_method_decl, 3159), (sym__method_decl_variables, 2368), (sym_prog_access_decls, 3043),
     (sym_config_init, 3047), (sym_variable_access, 7530), (sym_func_call, 2961),
     (sym_stmt_list, 8165), (sym__stmt, 2024), (sym_assign, 3150), (sym_if_stmt, 3150),
     (sym_case_stmt, 3150), (sym_for_stmt, 3150), (sym_while_stmt, 3150), (sym_repeat_stmt, 3150),
     (sym_raise_stmt, 3150), (sym_try_stmt, 3150), (sym_ERR_clause_outside_try, 3150),
     (sym_begin_path_expression, 2943), (sym_invocation, 2934), (sym_any_invocation, 2935),
     (sym_this_invocation, 2641), (sym_super_invocation, 2641), (sym_super_body_invocation, 2935),
     (sym_path_expression, 2627), (sym_field_expression, 2373), (sym_index_expression, 2373),
     (sym_ladder_diagram, 8165), (sym_fb_diagram, 8165), (aux_sym_func_decl_repeat1, 7194),
     (aux_sym_method_decl_repeat1, 2368), (aux_sym_stmt_list_repeat1, 2024),
     (aux_sym_ladder_diagram_repeat1, 7628), (aux_sym_fb_diagram_repeat1, 7633),
     (sym_identifier, 298), (aux_sym_ERR_unexpected_this_in_path_token1, 304),
     (aux_sym_ERR_unexpected_super_in_path_token1, 306), (sym_line_comment, 3),
     (anon_sym_LBRACE, 308), (aux_sym_test_pragma_token1, 9), (aux_sym_once_pragma_token1, 11),
     (aux_sym_must_call_pragma_token1, 13), (aux_sym_export_pragma_token1, 15),
     (anon_sym_SEMI, 310), (anon_sym_PERCENT, 312), (aux_sym_input_decls_token1, 2094),
     (aux_sym_output_decls_token1, 2096), (aux_sym_in_out_decls_token1, 318),
     (aux_sym_var_decls_token1, 2098), (aux_sym_temp_var_decls_token1, 322),
     (aux_sym_external_var_decls_token1, 324), (aux_sym_global_var_decls_token1, 326),
     (aux_sym_method_decl_token1, 330), (aux_sym_method_decl_token3, 2590),
     (aux_sym_prog_access_decls_token1, 332), (aux_sym_config_init_token1, 336),
     (aux_sym__stmt_token1, 340), (aux_sym__stmt_token2, 340), (aux_sym__stmt_token3, 340),
     (aux_sym_if_stmt_token1, 342), (aux_sym_case_stmt_token1, 344), (aux_sym_for_stmt_token1, 346),
     (aux_sym_while_stmt_token1, 348), (aux_sym_repeat_stmt_token1, 350),
     (aux_sym_raise_stmt_token1, 352), (aux_sym_try_stmt_token1, 354),
     (aux_sym_try_stmt_token2, 356), (aux_sym_catch_clause_token1, 356),
     (aux_sym_finally_clause_token1, 356), (sym_ld_rung, 2102), (sym_fbd_network, 2104),
     (sym_c_style_comment, 3), (sym_pascal_style_comment, 3), (sym_pragma, 3)]"

lemma ts_parse_row_1065_scan: "row_scan tokens_63_2 0 ts_parse_row_1065 = Some (Suc (Suc (Suc (Suc 0))))"
  unfolding ts_parse_row_1065_def by simp

text \<open>Lines 174110 to 174213.\<close>

definition ts_parse_row_1066 :: parse_row where
  "ts_parse_row_1066 =
    [(sym_ERR_assign_func_call, 7530), (sym_ERR_unexpected_this_in_path, 2372),
     (sym_ERR_unexpected_super_in_path, 2372), (sym_ERR_var_access_not_allowed, 3196),
     (sym_ERR_var_config_not_allowed, 3196), (sym_ERR_var_external_not_allowed, 3196),
     (sym_ERR_var_global_not_allowed, 3196), (sym_ERR_method_decl_in_body, 3150),
     (sym_extern_pragma, 7490), (sym_wasm_pragma, 3150), (sym_warn_pragma, 7490),
     (sym_allow_pragma, 3140), (sym_test_pragma, 7490), (sym_once_pragma, 7490),
     (sym_must_call_pragma, 7490), (sym_export_pragma, 7490), (sym_pou_pragma, 7194),
     (sym_direct_variable, 7675), (sym_deref_expression, 2373), (sym_variable, 7599),
     (sym_var_access, 2373), (sym_input_decls, 3196), (sym_output_decls, 3196),
     (sym_in_out_decls, 3196), (sym_var_decls, 3196), (sym_temp_var_decls, 3196),
     (sym_external_var_decls, 3197), (sym_global_var_decls, 2947), (sym_func_body, 10388),
     (sym_method_decl, 3159), (sym__method_decl_variables, 2368), (sym_prog_access_decls, 3043),
     (sym_config_init, 3047), (sym_variable_access, 7530), (sym_func_call, 2961),
     (sym_stmt_list, 8165), (sym__stmt, 2024), (sym_assign, 3150), (sym_if_stmt, 3150),
     (sym_case_stmt, 3150), (sym_for_stmt, 3150), (sym_while_stmt, 3150), (sym_repeat_stmt, 3150),
     (sym_raise_stmt, 3150), (sym_try_stmt, 3150), (sym_ERR_clause_outside_try, 3150),
     (sym_begin_path_expression, 2943), (sym_invocation, 2934), (sym_any_invocation, 2935),
     (sym_this_invocation, 2641), (sym_super_invocation, 2641), (sym_super_body_invocation, 2935),
     (sym_path_expression, 2627), (sym_field_expression, 2373), (sym_index_expression, 2373),
     (sym_ladder_diagram, 8165), (sym_fb_diagram, 8165), (aux_sym_func_decl_repeat1, 7194),
     (aux_sym_method_decl_repeat1, 2368), (aux_sym_stmt_list_repeat1, 2024),
     (aux_sym_ladder_diagram_repeat1, 7628), (aux_sym_fb_diagram_repeat1, 7633),
     (sym_identifier, 298), (aux_sym_ERR_unexpected_this_in_path_token1, 304),
     (aux_sym_ERR_unexpected_super_in_path_token1, 306), (sym_line_comment, 3),
     (anon_sym_LBRACE, 308), (aux_sym_test_pragma_token1, 9), (aux_sym_once_pragma_token1, 11),
     (aux_sym_must_call_pragma_token1, 13), (aux_sym_export_pragma_token1, 15),
     (anon_sym_SEMI, 310), (anon_sym_PERCENT, 312), (aux_sym_input_decls_token1, 2094),
     (aux_sym_output_decls_token1, 2096), (aux_sym_in_out_decls_token1, 318),
     (aux_sym_var_decls_token1, 2098), (aux_sym_temp_var_decls_token1, 322),
     (aux_sym_external_var_decls_token1, 324), (aux_sym_global_var_decls_token1, 326),
     (aux_sym_method_decl_token1, 330), (aux_sym_method_decl_token3, 2592),
     (aux_sym_prog_access_decls_token1, 332), (aux_sym_config_init_token1, 336),
     (aux_sym__stmt_token1, 340), (aux_sym__stmt_token2, 340), (aux_sym__stmt_token3, 340),
     (aux_sym_if_stmt_token1, 342), (aux_sym_case_stmt_token1, 344), (aux_sym_for_stmt_token1, 346),
     (aux_sym_while_stmt_token1, 348), (aux_sym_repeat_stmt_token1, 350),
     (aux_sym_raise_stmt_token1, 352), (aux_sym_try_stmt_token1, 354),
     (aux_sym_try_stmt_token2, 356), (aux_sym_catch_clause_token1, 356),
     (aux_sym_finally_clause_token1, 356), (sym_ld_rung, 2102), (sym_fbd_network, 2104),
     (sym_c_style_comment, 3), (sym_pascal_style_comment, 3), (sym_pragma, 3)]"

lemma ts_parse_row_1066_scan: "row_scan tokens_63_2 0 ts_parse_row_1066 = Some (Suc (Suc (Suc (Suc 0))))"
  unfolding ts_parse_row_1066_def by simp

text \<open>Lines 174214 to 174317.\<close>

definition ts_parse_row_1067 :: parse_row where
  "ts_parse_row_1067 =
    [(sym_ERR_assign_func_call, 7530), (sym_ERR_unexpected_this_in_path, 2372),
     (sym_ERR_unexpected_super_in_path, 2372), (sym_ERR_var_access_not_allowed, 3196),
     (sym_ERR_var_config_not_allowed, 3196), (sym_ERR_var_external_not_allowed, 3196),
     (sym_ERR_var_global_not_allowed, 3196), (sym_ERR_method_decl_in_body, 3150),
     (sym_extern_pragma, 7490), (sym_wasm_pragma, 3150), (sym_warn_pragma, 7490),
     (sym_allow_pragma, 3140), (sym_test_pragma, 7490), (sym_once_pragma, 7490),
     (sym_must_call_pragma, 7490), (sym_export_pragma, 7490), (sym_pou_pragma, 7194),
     (sym_direct_variable, 7675), (sym_deref_expression, 2373), (sym_variable, 7599),
     (sym_var_access, 2373), (sym_input_decls, 3196), (sym_output_decls, 3196),
     (sym_in_out_decls, 3196), (sym_var_decls, 3196), (sym_temp_var_decls, 3196),
     (sym_external_var_decls, 3197), (sym_global_var_decls, 2947), (sym_func_body, 10390),
     (sym_method_decl, 3159), (sym__method_decl_variables, 2368), (sym_prog_access_decls, 3043),
     (sym_config_init, 3047), (sym_variable_access, 7530), (sym_func_call, 2961),
     (sym_stmt_list, 8165), (sym__stmt, 2024), (sym_assign, 3150), (sym_if_stmt, 3150),
     (sym_case_stmt, 3150), (sym_for_stmt, 3150), (sym_while_stmt, 3150), (sym_repeat_stmt, 3150),
     (sym_raise_stmt, 3150), (sym_try_stmt, 3150), (sym_ERR_clause_outside_try, 3150),
     (sym_begin_path_expression, 2943), (sym_invocation, 2934), (sym_any_invocation, 2935),
     (sym_this_invocation, 2641), (sym_super_invocation, 2641), (sym_super_body_invocation, 2935),
     (sym_path_expression, 2627), (sym_field_expression, 2373), (sym_index_expression, 2373),
     (sym_ladder_diagram, 8165), (sym_fb_diagram, 8165), (aux_sym_func_decl_repeat1, 7194),
     (aux_sym_method_decl_repeat1, 2368), (aux_sym_stmt_list_repeat1, 2024),
     (aux_sym_ladder_diagram_repeat1, 7628), (aux_sym_fb_diagram_repeat1, 7633),
     (sym_identifier, 298), (aux_sym_ERR_unexpected_this_in_path_token1, 304),
     (aux_sym_ERR_unexpected_super_in_path_token1, 306), (sym_line_comment, 3),
     (anon_sym_LBRACE, 308), (aux_sym_test_pragma_token1, 9), (aux_sym_once_pragma_token1, 11),
     (aux_sym_must_call_pragma_token1, 13), (aux_sym_export_pragma_token1, 15),
     (anon_sym_SEMI, 310), (anon_sym_PERCENT, 312), (aux_sym_input_decls_token1, 2094),
     (aux_sym_output_decls_token1, 2096), (aux_sym_in_out_decls_token1, 318),
     (aux_sym_var_decls_token1, 2098), (aux_sym_temp_var_decls_token1, 322),
     (aux_sym_external_var_decls_token1, 324), (aux_sym_global_var_decls_token1, 326),
     (aux_sym_method_decl_token1, 330), (aux_sym_method_decl_token3, 2594),
     (aux_sym_prog_access_decls_token1, 332), (aux_sym_config_init_token1, 336),
     (aux_sym__stmt_token1, 340), (aux_sym__stmt_token2, 340), (aux_sym__stmt_token3, 340),
     (aux_sym_if_stmt_token1, 342), (aux_sym_case_stmt_token1, 344), (aux_sym_for_stmt_token1, 346),
     (aux_sym_while_stmt_token1, 348), (aux_sym_repeat_stmt_token1, 350),
     (aux_sym_raise_stmt_token1, 352), (aux_sym_try_stmt_token1, 354),
     (aux_sym_try_stmt_token2, 356), (aux_sym_catch_clause_token1, 356),
     (aux_sym_finally_clause_token1, 356), (sym_ld_rung, 2102), (sym_fbd_network, 2104),
     (sym_c_style_comment, 3), (sym_pascal_style_comment, 3), (sym_pragma, 3)]"

lemma ts_parse_row_1067_scan: "row_scan tokens_63_2 0 ts_parse_row_1067 = Some (Suc (Suc (Suc (Suc 0))))"
  unfolding ts_parse_row_1067_def by simp

text \<open>Lines 174318 to 174421.\<close>

definition ts_parse_row_1068 :: parse_row where
  "ts_parse_row_1068 =
    [(sym_ERR_assign_func_call, 7530), (sym_ERR_unexpected_this_in_path, 2372),
     (sym_ERR_unexpected_super_in_path, 2372), (sym_ERR_var_access_not_allowed, 3196),
     (sym_ERR_var_config_not_allowed, 3196), (sym_ERR_var_external_not_allowed, 3196),
     (sym_ERR_var_global_not_allowed, 3196), (sym_ERR_method_decl_in_body, 3150),
     (sym_extern_pragma, 7490), (sym_wasm_pragma, 3150), (sym_warn_pragma, 7490),
     (sym_allow_pragma, 3140), (sym_test_pragma, 7490), (sym_once_pragma, 7490),
     (sym_must_call_pragma, 7490), (sym_export_pragma, 7490), (sym_pou_pragma, 7194),
     (sym_direct_variable, 7675), (sym_deref_expression, 2373), (sym_variable, 7599),
     (sym_var_access, 2373), (sym_input_decls, 3196), (sym_output_decls, 3196),
     (sym_in_out_decls, 3196), (sym_var_decls, 3196), (sym_temp_var_decls, 3196),
     (sym_external_var_decls, 3197), (sym_global_var_decls, 2947), (sym_func_body, 10391),
     (sym_method_decl, 3159), (sym__method_decl_variables, 1081), (sym_prog_access_decls, 3043),
     (sym_config_init, 3047), (sym_variable_access, 7530), (sym_func_call, 2961),
     (sym_stmt_list, 8165), (sym__stmt, 2024), (sym_assign, 3150), (sym_if_stmt, 3150),
     (sym_case_stmt, 3150), (sym_for_stmt, 3150), (sym_while_stmt, 3150), (sym_repeat_stmt, 3150),
     (sym_raise_stmt, 3150), (sym_try_stmt, 3150), (sym_ERR_clause_outside_try, 3150),
     (sym_begin_path_expression, 2943), (sym_invocation, 2934), (sym_any_invocation, 2935),
     (sym_this_invocation, 2641), (sym_super_invocation, 2641), (sym_super_body_invocation, 2935),
     (sym_path_expression, 2627), (sym_field_expression, 2373), (sym_index_expression, 2373),
     (sym_ladder_diagram, 8165), (sym_fb_diagram, 8165), (aux_sym_func_decl_repeat1, 7194),
     (aux_sym_method_decl_repeat1, 1081), (aux_sym_stmt_list_repeat1, 2024),
     (aux_sym_ladder_diagram_repeat1, 7628), (aux_sym_fb_diagram_repeat1, 7633),
     (sym_identifier, 298), (aux_sym_ERR_unexpected_this_in_path_token1, 304),
     (aux_sym_ERR_unexpected_super_in_path_token1, 306), (sym_line_comment, 3),
     (anon_sym_LBRACE, 308), (aux_sym_test_pragma_token1, 9), (aux_sym_once_pragma_token1, 11),
     (aux_sym_must_call_pragma_token1, 13), (aux_sym_export_pragma_token1, 15),
     (anon_sym_SEMI, 310), (anon_sym_PERCENT, 312), (aux_sym_input_decls_token1, 2094),
     (aux_sym_output_decls_token1, 2096), (aux_sym_in_out_decls_token1, 318),
     (aux_sym_var_decls_token1, 2098), (aux_sym_temp_var_decls_token1, 322),
     (aux_sym_external_var_decls_token1, 324), (aux_sym_global_var_decls_token1, 326),
     (aux_sym_method_decl_token1, 330), (aux_sym_method_decl_token3, 2596),
     (aux_sym_prog_access_decls_token1, 332), (aux_sym_config_init_token1, 336),
     (aux_sym__stmt_token1, 340), (aux_sym__stmt_token2, 340), (aux_sym__stmt_token3, 340),
     (aux_sym_if_stmt_token1, 342), (aux_sym_case_stmt_token1, 344), (aux_sym_for_stmt_token1, 346),
     (aux_sym_while_stmt_token1, 348), (aux_sym_repeat_stmt_token1, 350),
     (aux_sym_raise_stmt_token1, 352), (aux_sym_try_stmt_token1, 354),
     (aux_sym_try_stmt_token2, 356), (aux_sym_catch_clause_token1, 356),
     (aux_sym_finally_clause_token1, 356), (sym_ld_rung, 2102), (sym_fbd_network, 2104),
     (sym_c_style_comment, 3), (sym_pascal_style_comment, 3), (sym_pragma, 3)]"

lemma ts_parse_row_1068_scan: "row_scan tokens_63_2 0 ts_parse_row_1068 = Some (Suc (Suc (Suc (Suc 0))))"
  unfolding ts_parse_row_1068_def by simp

text \<open>Lines 174422 to 174525.\<close>

definition ts_parse_row_1069 :: parse_row where
  "ts_parse_row_1069 =
    [(sym_ERR_assign_func_call, 7530), (sym_ERR_unexpected_this_in_path, 2372),
     (sym_ERR_unexpected_super_in_path, 2372), (sym_ERR_var_access_not_allowed, 3196),
     (sym_ERR_var_config_not_allowed, 3196), (sym_ERR_var_external_not_allowed, 3196),
     (sym_ERR_var_global_not_allowed, 3196), (sym_ERR_method_decl_in_body, 3150),
     (sym_extern_pragma, 7490), (sym_wasm_pragma, 3150), (sym_warn_pragma, 7490),
     (sym_allow_pragma, 3140), (sym_test_pragma, 7490), (sym_once_pragma, 7490),
     (sym_must_call_pragma, 7490), (sym_export_pragma, 7490), (sym_pou_pragma, 7194),
     (sym_direct_variable, 7675), (sym_deref_expression, 2373), (sym_variable, 7599),
     (sym_var_access, 2373), (sym_input_decls, 3196), (sym_output_decls, 3196),
     (sym_in_out_decls, 3196), (sym_var_decls, 3196), (sym_temp_var_decls, 3196),
     (sym_external_var_decls, 3197), (sym_global_var_decls, 2947), (sym_func_body, 10393),
     (sym_method_decl, 3159), (sym__method_decl_variables, 1082), (sym_prog_access_decls, 3043),
     (sym_config_init, 3047), (sym_variable_access, 7530), (sym_func_call, 2961),
     (sym_stmt_list, 8165), (sym__stmt, 2024), (sym_assign, 3150), (sym_if_stmt, 3150),
     (sym_case_stmt, 3150), (sym_for_stmt, 3150), (sym_while_stmt, 3150), (sym_repeat_stmt, 3150),
     (sym_raise_stmt, 3150), (sym_try_stmt, 3150), (sym_ERR_clause_outside_try, 3150),
     (sym_begin_path_expression, 2943), (sym_invocation, 2934), (sym_any_invocation, 2935),
     (sym_this_invocation, 2641), (sym_super_invocation, 2641), (sym_super_body_invocation, 2935),
     (sym_path_expression, 2627), (sym_field_expression, 2373), (sym_index_expression, 2373),
     (sym_ladder_diagram, 8165), (sym_fb_diagram, 8165), (aux_sym_func_decl_repeat1, 7194),
     (aux_sym_method_decl_repeat1, 1082), (aux_sym_stmt_list_repeat1, 2024),
     (aux_sym_ladder_diagram_repeat1, 7628), (aux_sym_fb_diagram_repeat1, 7633),
     (sym_identifier, 298), (aux_sym_ERR_unexpected_this_in_path_token1, 304),
     (aux_sym_ERR_unexpected_super_in_path_token1, 306), (sym_line_comment, 3),
     (anon_sym_LBRACE, 308), (aux_sym_test_pragma_token1, 9), (aux_sym_once_pragma_token1, 11),
     (aux_sym_must_call_pragma_token1, 13), (aux_sym_export_pragma_token1, 15),
     (anon_sym_SEMI, 310), (anon_sym_PERCENT, 312), (aux_sym_input_decls_token1, 2094),
     (aux_sym_output_decls_token1, 2096), (aux_sym_in_out_decls_token1, 318),
     (aux_sym_var_decls_token1, 2098), (aux_sym_temp_var_decls_token1, 322),
     (aux_sym_external_var_decls_token1, 324), (aux_sym_global_var_decls_token1, 326),
     (aux_sym_method_decl_token1, 330), (aux_sym_method_decl_token3, 2598),
     (aux_sym_prog_access_decls_token1, 332), (aux_sym_config_init_token1, 336),
     (aux_sym__stmt_token1, 340), (aux_sym__stmt_token2, 340), (aux_sym__stmt_token3, 340),
     (aux_sym_if_stmt_token1, 342), (aux_sym_case_stmt_token1, 344), (aux_sym_for_stmt_token1, 346),
     (aux_sym_while_stmt_token1, 348), (aux_sym_repeat_stmt_token1, 350),
     (aux_sym_raise_stmt_token1, 352), (aux_sym_try_stmt_token1, 354),
     (aux_sym_try_stmt_token2, 356), (aux_sym_catch_clause_token1, 356),
     (aux_sym_finally_clause_token1, 356), (sym_ld_rung, 2102), (sym_fbd_network, 2104),
     (sym_c_style_comment, 3), (sym_pascal_style_comment, 3), (sym_pragma, 3)]"

lemma ts_parse_row_1069_scan: "row_scan tokens_63_2 0 ts_parse_row_1069 = Some (Suc (Suc (Suc (Suc 0))))"
  unfolding ts_parse_row_1069_def by simp

text \<open>Lines 174526 to 174629.\<close>

definition ts_parse_row_1070 :: parse_row where
  "ts_parse_row_1070 =
    [(sym_ERR_assign_func_call, 7530), (sym_ERR_unexpected_this_in_path, 2372),
     (sym_ERR_unexpected_super_in_path, 2372), (sym_ERR_var_access_not_allowed, 3196),
     (sym_ERR_var_config_not_allowed, 3196), (sym_ERR_var_external_not_allowed, 3196),
     (sym_ERR_var_global_not_allowed, 3196), (sym_ERR_method_decl_in_body, 3150),
     (sym_extern_pragma, 7490), (sym_wasm_pragma, 3150), (sym_warn_pragma, 7490),
     (sym_allow_pragma, 3140), (sym_test_pragma, 7490), (sym_once_pragma, 7490),
     (sym_must_call_pragma, 7490), (sym_export_pragma, 7490), (sym_pou_pragma, 7194),
     (sym_direct_variable, 7675), (sym_deref_expression, 2373), (sym_variable, 7599),
     (sym_var_access, 2373), (sym_input_decls, 3196), (sym_output_decls, 3196),
     (sym_in_out_decls, 3196), (sym_var_decls, 3196), (sym_temp_var_decls, 3196),
     (sym_external_var_decls, 3197), (sym_global_var_decls, 2947), (sym_func_body, 10395),
     (sym_method_decl, 3159), (sym__method_decl_variables, 2368), (sym_prog_access_decls, 3043),
     (sym_config_init, 3047), (sym_variable_access, 7530), (sym_func_call, 2961),
     (sym_stmt_list, 8165), (sym__stmt, 2024), (sym_assign, 3150), (sym_if_stmt, 3150),
     (sym_case_stmt, 3150), (sym_for_stmt, 3150), (sym_while_stmt, 3150), (sym_repeat_stmt, 3150),
     (sym_raise_stmt, 3150), (sym_try_stmt, 3150), (sym_ERR_clause_outside_try, 3150),
     (sym_begin_path_expression, 2943), (sym_invocation, 2934), (sym_any_invocation, 2935),
     (sym_this_invocation, 2641), (sym_super_invocation, 2641), (sym_super_body_invocation, 2935),
     (sym_path_expression, 2627), (sym_field_expression, 2373), (sym_index_expression, 2373),
     (sym_ladder_diagram, 8165), (sym_fb_diagram, 8165), (aux_sym_func_decl_repeat1, 7194),
     (aux_sym_method_decl_repeat1, 2368), (aux_sym_stmt_list_repeat1, 2024),
     (aux_sym_ladder_diagram_repeat1, 7628), (aux_sym_fb_diagram_repeat1, 7633),
     (sym_identifier, 298), (aux_sym_ERR_unexpected_this_in_path_token1, 304),
     (aux_sym_ERR_unexpected_super_in_path_token1, 306), (sym_line_comment, 3),
     (anon_sym_LBRACE, 308), (aux_sym_test_pragma_token1, 9), (aux_sym_once_pragma_token1, 11),
     (aux_sym_must_call_pragma_token1, 13), (aux_sym_export_pragma_token1, 15),
     (anon_sym_SEMI, 310), (anon_sym_PERCENT, 312), (aux_sym_input_decls_token1, 2094),
     (aux_sym_output_decls_token1, 2096), (aux_sym_in_out_decls_token1, 318),
     (aux_sym_var_decls_token1, 2098), (aux_sym_temp_var_decls_token1, 322),
     (aux_sym_external_var_decls_token1, 324), (aux_sym_global_var_decls_token1, 326),
     (aux_sym_method_decl_token1, 330), (aux_sym_method_decl_token3, 2600),
     (aux_sym_prog_access_decls_token1, 332), (aux_sym_config_init_token1, 336),
     (aux_sym__stmt_token1, 340), (aux_sym__stmt_token2, 340), (aux_sym__stmt_token3, 340),
     (aux_sym_if_stmt_token1, 342), (aux_sym_case_stmt_token1, 344), (aux_sym_for_stmt_token1, 346),
     (aux_sym_while_stmt_token1, 348), (aux_sym_repeat_stmt_token1, 350),
     (aux_sym_raise_stmt_token1, 352), (aux_sym_try_stmt_token1, 354),
     (aux_sym_try_stmt_token2, 356), (aux_sym_catch_clause_token1, 356),
     (aux_sym_finally_clause_token1, 356), (sym_ld_rung, 2102), (sym_fbd_network, 2104),
     (sym_c_style_comment, 3), (sym_pascal_style_comment, 3), (sym_pragma, 3)]"

lemma ts_parse_row_1070_scan: "row_scan tokens_63_2 0 ts_parse_row_1070 = Some (Suc (Suc (Suc (Suc 0))))"
  unfolding ts_parse_row_1070_def by simp

text \<open>Lines 174630 to 174733.\<close>

definition ts_parse_row_1071 :: parse_row where
  "ts_parse_row_1071 =
    [(sym_ERR_assign_func_call, 7530), (sym_ERR_unexpected_this_in_path, 2372),
     (sym_ERR_unexpected_super_in_path, 2372), (sym_ERR_var_access_not_allowed, 3196),
     (sym_ERR_var_config_not_allowed, 3196), (sym_ERR_var_external_not_allowed, 3196),
     (sym_ERR_var_global_not_allowed, 3196), (sym_ERR_method_decl_in_body, 3150),
     (sym_extern_pragma, 7490), (sym_wasm_pragma, 3150), (sym_warn_pragma, 7490),
     (sym_allow_pragma, 3140), (sym_test_pragma, 7490), (sym_once_pragma, 7490),
     (sym_must_call_pragma, 7490), (sym_export_pragma, 7490), (sym_pou_pragma, 7194),
     (sym_direct_variable, 7675), (sym_deref_expression, 2373), (sym_variable, 7599),
     (sym_var_access, 2373), (sym_input_decls, 3196), (sym_output_decls, 3196),
     (sym_in_out_decls, 3196), (sym_var_decls, 3196), (sym_temp_var_decls, 3196),
     (sym_external_var_decls, 3197), (sym_global_var_decls, 2947), (sym_func_body, 10397),
     (sym_method_decl, 3159), (sym__method_decl_variables, 2368), (sym_prog_access_decls, 3043),
     (sym_config_init, 3047), (sym_variable_access, 7530), (sym_func_call, 2961),
     (sym_stmt_list, 8165), (sym__stmt, 2024), (sym_assign, 3150), (sym_if_stmt, 3150),
     (sym_case_stmt, 3150), (sym_for_stmt, 3150), (sym_while_stmt, 3150), (sym_repeat_stmt, 3150),
     (sym_raise_stmt, 3150), (sym_try_stmt, 3150), (sym_ERR_clause_outside_try, 3150),
     (sym_begin_path_expression, 2943), (sym_invocation, 2934), (sym_any_invocation, 2935),
     (sym_this_invocation, 2641), (sym_super_invocation, 2641), (sym_super_body_invocation, 2935),
     (sym_path_expression, 2627), (sym_field_expression, 2373), (sym_index_expression, 2373),
     (sym_ladder_diagram, 8165), (sym_fb_diagram, 8165), (aux_sym_func_decl_repeat1, 7194),
     (aux_sym_method_decl_repeat1, 2368), (aux_sym_stmt_list_repeat1, 2024),
     (aux_sym_ladder_diagram_repeat1, 7628), (aux_sym_fb_diagram_repeat1, 7633),
     (sym_identifier, 298), (aux_sym_ERR_unexpected_this_in_path_token1, 304),
     (aux_sym_ERR_unexpected_super_in_path_token1, 306), (sym_line_comment, 3),
     (anon_sym_LBRACE, 308), (aux_sym_test_pragma_token1, 9), (aux_sym_once_pragma_token1, 11),
     (aux_sym_must_call_pragma_token1, 13), (aux_sym_export_pragma_token1, 15),
     (anon_sym_SEMI, 310), (anon_sym_PERCENT, 312), (aux_sym_input_decls_token1, 2094),
     (aux_sym_output_decls_token1, 2096), (aux_sym_in_out_decls_token1, 318),
     (aux_sym_var_decls_token1, 2098), (aux_sym_temp_var_decls_token1, 322),
     (aux_sym_external_var_decls_token1, 324), (aux_sym_global_var_decls_token1, 326),
     (aux_sym_method_decl_token1, 330), (aux_sym_method_decl_token3, 2602),
     (aux_sym_prog_access_decls_token1, 332), (aux_sym_config_init_token1, 336),
     (aux_sym__stmt_token1, 340), (aux_sym__stmt_token2, 340), (aux_sym__stmt_token3, 340),
     (aux_sym_if_stmt_token1, 342), (aux_sym_case_stmt_token1, 344), (aux_sym_for_stmt_token1, 346),
     (aux_sym_while_stmt_token1, 348), (aux_sym_repeat_stmt_token1, 350),
     (aux_sym_raise_stmt_token1, 352), (aux_sym_try_stmt_token1, 354),
     (aux_sym_try_stmt_token2, 356), (aux_sym_catch_clause_token1, 356),
     (aux_sym_finally_clause_token1, 356), (sym_ld_rung, 2102), (sym_fbd_network, 2104),
     (sym_c_style_comment, 3), (sym_pascal_style_comment, 3), (sym_pragma, 3)]"

lemma ts_parse_row_1071_scan: "row_scan tokens_63_2 0 ts_parse_row_1071 = Some (Suc (Suc (Suc (Suc 0))))"
  unfolding ts_parse_row_1071_def by simp

text \<open>Lines 174734 to 174837.\<close>

definition ts_parse_row_1072 :: parse_row where
  "ts_parse_row_1072 =
    [(sym_ERR_assign_func_call, 7530), (sym_ERR_unexpected_this_in_path, 2372),
     (sym_ERR_unexpected_super_in_path, 2372), (sym_ERR_var_access_not_allowed, 3196),
     (sym_ERR_var_config_not_allowed, 3196), (sym_ERR_var_external_not_allowed, 3196),
     (sym_ERR_var_global_not_allowed, 3196), (sym_ERR_method_decl_in_body, 3150),
     (sym_extern_pragma, 7490), (sym_wasm_pragma, 3150), (sym_warn_pragma, 7490),
     (sym_allow_pragma, 3140), (sym_test_pragma, 7490), (sym_once_pragma, 7490),
     (sym_must_call_pragma, 7490), (sym_export_pragma, 7490), (sym_pou_pragma, 7194),
     (sym_direct_variable, 7675), (sym_deref_expression, 2373), (sym_variable, 7599),
     (sym_var_access, 2373), (sym_input_decls, 3196), (sym_output_decls, 3196),
     (sym_in_out_decls, 3196), (sym_var_decls, 3196), (sym_temp_var_decls, 3196),
     (sym_external_var_decls, 3197), (sym_global_var_decls, 2947), (sym_func_body, 10398),
     (sym_method_decl, 3159), (sym__method_decl_variables, 1084), (sym_prog_access_decls, 3043),
     (sym_config_init, 3047), (sym_variable_access, 7530), (sym_func_call, 2961),
     (sym_stmt_list, 8165), (sym__stmt, 2024), (sym_assign, 3150), (sym_if_stmt, 3150),
     (sym_case_stmt, 3150), (sym_for_stmt, 3150), (sym_while_stmt, 3150), (sym_repeat_stmt, 3150),
     (sym_raise_stmt, 3150), (sym_try_stmt, 3150), (sym_ERR_clause_outside_try, 3150),
     (sym_begin_path_expression, 2943), (sym_invocation, 2934), (sym_any_invocation, 2935),
     (sym_this_invocation, 2641), (sym_super_invocation, 2641), (sym_super_body_invocation, 2935),
     (sym_path_expression, 2627), (sym_field_expression, 2373), (sym_index_expression, 2373),
     (sym_ladder_diagram, 8165), (sym_fb_diagram, 8165), (aux_sym_func_decl_repeat1, 7194),
     (aux_sym_method_decl_repeat1, 1084), (aux_sym_stmt_list_repeat1, 2024),
     (aux_sym_ladder_diagram_repeat1, 7628), (aux_sym_fb_diagram_repeat1, 7633),
     (sym_identifier, 298), (aux_sym_ERR_unexpected_this_in_path_token1, 304),
     (aux_sym_ERR_unexpected_super_in_path_token1, 306), (sym_line_comment, 3),
     (anon_sym_LBRACE, 308), (aux_sym_test_pragma_token1, 9), (aux_sym_once_pragma_token1, 11),
     (aux_sym_must_call_pragma_token1, 13), (aux_sym_export_pragma_token1, 15),
     (anon_sym_SEMI, 310), (anon_sym_PERCENT, 312), (aux_sym_input_decls_token1, 2094),
     (aux_sym_output_decls_token1, 2096), (aux_sym_in_out_decls_token1, 318),
     (aux_sym_var_decls_token1, 2098), (aux_sym_temp_var_decls_token1, 322),
     (aux_sym_external_var_decls_token1, 324), (aux_sym_global_var_decls_token1, 326),
     (aux_sym_method_decl_token1, 330), (aux_sym_method_decl_token3, 2604),
     (aux_sym_prog_access_decls_token1, 332), (aux_sym_config_init_token1, 336),
     (aux_sym__stmt_token1, 340), (aux_sym__stmt_token2, 340), (aux_sym__stmt_token3, 340),
     (aux_sym_if_stmt_token1, 342), (aux_sym_case_stmt_token1, 344), (aux_sym_for_stmt_token1, 346),
     (aux_sym_while_stmt_token1, 348), (aux_sym_repeat_stmt_token1, 350),
     (aux_sym_raise_stmt_token1, 352), (aux_sym_try_stmt_token1, 354),
     (aux_sym_try_stmt_token2, 356), (aux_sym_catch_clause_token1, 356),
     (aux_sym_finally_clause_token1, 356), (sym_ld_rung, 2102), (sym_fbd_network, 2104),
     (sym_c_style_comment, 3), (sym_pascal_style_comment, 3), (sym_pragma, 3)]"

lemma ts_parse_row_1072_scan: "row_scan tokens_63_2 0 ts_parse_row_1072 = Some (Suc (Suc (Suc (Suc 0))))"
  unfolding ts_parse_row_1072_def by simp

text \<open>Lines 174838 to 174941.\<close>

definition ts_parse_row_1073 :: parse_row where
  "ts_parse_row_1073 =
    [(sym_ERR_assign_func_call, 7530), (sym_ERR_unexpected_this_in_path, 2372),
     (sym_ERR_unexpected_super_in_path, 2372), (sym_ERR_var_access_not_allowed, 3196),
     (sym_ERR_var_config_not_allowed, 3196), (sym_ERR_var_external_not_allowed, 3196),
     (sym_ERR_var_global_not_allowed, 3196), (sym_ERR_method_decl_in_body, 3150),
     (sym_extern_pragma, 7490), (sym_wasm_pragma, 3150), (sym_warn_pragma, 7490),
     (sym_allow_pragma, 3140), (sym_test_pragma, 7490), (sym_once_pragma, 7490),
     (sym_must_call_pragma, 7490), (sym_export_pragma, 7490), (sym_pou_pragma, 7194),
     (sym_direct_variable, 7675), (sym_deref_expression, 2373), (sym_variable, 7599),
     (sym_var_access, 2373), (sym_input_decls, 3196), (sym_output_decls, 3196),
     (sym_in_out_decls, 3196), (sym_var_decls, 3196), (sym_temp_var_decls, 3196),
     (sym_external_var_decls, 3197), (sym_global_var_decls, 2947), (sym_func_body, 10400),
     (sym_method_decl, 3159), (sym__method_decl_variables, 1085), (sym_prog_access_decls, 3043),
     (sym_config_init, 3047), (sym_variable_access, 7530), (sym_func_call, 2961),
     (sym_stmt_list, 8165), (sym__stmt, 2024), (sym_assign, 3150), (sym_if_stmt, 3150),
     (sym_case_stmt, 3150), (sym_for_stmt, 3150), (sym_while_stmt, 3150), (sym_repeat_stmt, 3150),
     (sym_raise_stmt, 3150), (sym_try_stmt, 3150), (sym_ERR_clause_outside_try, 3150),
     (sym_begin_path_expression, 2943), (sym_invocation, 2934), (sym_any_invocation, 2935),
     (sym_this_invocation, 2641), (sym_super_invocation, 2641), (sym_super_body_invocation, 2935),
     (sym_path_expression, 2627), (sym_field_expression, 2373), (sym_index_expression, 2373),
     (sym_ladder_diagram, 8165), (sym_fb_diagram, 8165), (aux_sym_func_decl_repeat1, 7194),
     (aux_sym_method_decl_repeat1, 1085), (aux_sym_stmt_list_repeat1, 2024),
     (aux_sym_ladder_diagram_repeat1, 7628), (aux_sym_fb_diagram_repeat1, 7633),
     (sym_identifier, 298), (aux_sym_ERR_unexpected_this_in_path_token1, 304),
     (aux_sym_ERR_unexpected_super_in_path_token1, 306), (sym_line_comment, 3),
     (anon_sym_LBRACE, 308), (aux_sym_test_pragma_token1, 9), (aux_sym_once_pragma_token1, 11),
     (aux_sym_must_call_pragma_token1, 13), (aux_sym_export_pragma_token1, 15),
     (anon_sym_SEMI, 310), (anon_sym_PERCENT, 312), (aux_sym_input_decls_token1, 2094),
     (aux_sym_output_decls_token1, 2096), (aux_sym_in_out_decls_token1, 318),
     (aux_sym_var_decls_token1, 2098), (aux_sym_temp_var_decls_token1, 322),
     (aux_sym_external_var_decls_token1, 324), (aux_sym_global_var_decls_token1, 326),
     (aux_sym_method_decl_token1, 330), (aux_sym_method_decl_token3, 2606),
     (aux_sym_prog_access_decls_token1, 332), (aux_sym_config_init_token1, 336),
     (aux_sym__stmt_token1, 340), (aux_sym__stmt_token2, 340), (aux_sym__stmt_token3, 340),
     (aux_sym_if_stmt_token1, 342), (aux_sym_case_stmt_token1, 344), (aux_sym_for_stmt_token1, 346),
     (aux_sym_while_stmt_token1, 348), (aux_sym_repeat_stmt_token1, 350),
     (aux_sym_raise_stmt_token1, 352), (aux_sym_try_stmt_token1, 354),
     (aux_sym_try_stmt_token2, 356), (aux_sym_catch_clause_token1, 356),
     (aux_sym_finally_clause_token1, 356), (sym_ld_rung, 2102), (sym_fbd_network, 2104),
     (sym_c_style_comment, 3), (sym_pascal_style_comment, 3), (sym_pragma, 3)]"

lemma ts_parse_row_1073_scan: "row_scan tokens_63_2 0 ts_parse_row_1073 = Some (Suc (Suc (Suc (Suc 0))))"
  unfolding ts_parse_row_1073_def by simp

text \<open>Lines 174942 to 175045.\<close>

definition ts_parse_row_1074 :: parse_row where
  "ts_parse_row_1074 =
    [(sym_ERR_assign_func_call, 7530), (sym_ERR_unexpected_this_in_path, 2372),
     (sym_ERR_unexpected_super_in_path, 2372), (sym_ERR_var_access_not_allowed, 3196),
     (sym_ERR_var_config_not_allowed, 3196), (sym_ERR_var_external_not_allowed, 3196),
     (sym_ERR_var_global_not_allowed, 3196), (sym_ERR_method_decl_in_body, 3150),
     (sym_extern_pragma, 7490), (sym_wasm_pragma, 3150), (sym_warn_pragma, 7490),
     (sym_allow_pragma, 3140), (sym_test_pragma, 7490), (sym_once_pragma, 7490),
     (sym_must_call_pragma, 7490), (sym_export_pragma, 7490), (sym_pou_pragma, 7194),
     (sym_direct_variable, 7675), (sym_deref_expression, 2373), (sym_variable, 7599),
     (sym_var_access, 2373), (sym_input_decls, 3196), (sym_output_decls, 3196),
     (sym_in_out_decls, 3196), (sym_var_decls, 3196), (sym_temp_var_decls, 3196),
     (sym_external_var_decls, 3197), (sym_global_var_decls, 2947), (sym_func_body, 10402),
     (sym_method_decl, 3159), (sym__method_decl_variables, 2368), (sym_prog_access_decls, 3043),
     (sym_config_init, 3047), (sym_variable_access, 7530), (sym_func_call, 2961),
     (sym_stmt_list, 8165), (sym__stmt, 2024), (sym_assign, 3150), (sym_if_stmt, 3150),
     (sym_case_stmt, 3150), (sym_for_stmt, 3150), (sym_while_stmt, 3150), (sym_repeat_stmt, 3150),
     (sym_raise_stmt, 3150), (sym_try_stmt, 3150), (sym_ERR_clause_outside_try, 3150),
     (sym_begin_path_expression, 2943), (sym_invocation, 2934), (sym_any_invocation, 2935),
     (sym_this_invocation, 2641), (sym_super_invocation, 2641), (sym_super_body_invocation, 2935),
     (sym_path_expression, 2627), (sym_field_expression, 2373), (sym_index_expression, 2373),
     (sym_ladder_diagram, 8165), (sym_fb_diagram, 8165), (aux_sym_func_decl_repeat1, 7194),
     (aux_sym_method_decl_repeat1, 2368), (aux_sym_stmt_list_repeat1, 2024),
     (aux_sym_ladder_diagram_repeat1, 7628), (aux_sym_fb_diagram_repeat1, 7633),
     (sym_identifier, 298), (aux_sym_ERR_unexpected_this_in_path_token1, 304),
     (aux_sym_ERR_unexpected_super_in_path_token1, 306), (sym_line_comment, 3),
     (anon_sym_LBRACE, 308), (aux_sym_test_pragma_token1, 9), (aux_sym_once_pragma_token1, 11),
     (aux_sym_must_call_pragma_token1, 13), (aux_sym_export_pragma_token1, 15),
     (anon_sym_SEMI, 310), (anon_sym_PERCENT, 312), (aux_sym_input_decls_token1, 2094),
     (aux_sym_output_decls_token1, 2096), (aux_sym_in_out_decls_token1, 318),
     (aux_sym_var_decls_token1, 2098), (aux_sym_temp_var_decls_token1, 322),
     (aux_sym_external_var_decls_token1, 324), (aux_sym_global_var_decls_token1, 326),
     (aux_sym_method_decl_token1, 330), (aux_sym_method_decl_token3, 2608),
     (aux_sym_prog_access_decls_token1, 332), (aux_sym_config_init_token1, 336),
     (aux_sym__stmt_token1, 340), (aux_sym__stmt_token2, 340), (aux_sym__stmt_token3, 340),
     (aux_sym_if_stmt_token1, 342), (aux_sym_case_stmt_token1, 344), (aux_sym_for_stmt_token1, 346),
     (aux_sym_while_stmt_token1, 348), (aux_sym_repeat_stmt_token1, 350),
     (aux_sym_raise_stmt_token1, 352), (aux_sym_try_stmt_token1, 354),
     (aux_sym_try_stmt_token2, 356), (aux_sym_catch_clause_token1, 356),
     (aux_sym_finally_clause_token1, 356), (sym_ld_rung, 2102), (sym_fbd_network, 2104),
     (sym_c_style_comment, 3), (sym_pascal_style_comment, 3), (sym_pragma, 3)]"

lemma ts_parse_row_1074_scan: "row_scan tokens_63_2 0 ts_parse_row_1074 = Some (Suc (Suc (Suc (Suc 0))))"
  unfolding ts_parse_row_1074_def by simp

text \<open>Lines 175046 to 175149.\<close>

definition ts_parse_row_1075 :: parse_row where
  "ts_parse_row_1075 =
    [(sym_ERR_assign_func_call, 7530), (sym_ERR_unexpected_this_in_path, 2372),
     (sym_ERR_unexpected_super_in_path, 2372), (sym_ERR_var_access_not_allowed, 3196),
     (sym_ERR_var_config_not_allowed, 3196), (sym_ERR_var_external_not_allowed, 3196),
     (sym_ERR_var_global_not_allowed, 3196), (sym_ERR_method_decl_in_body, 3150),
     (sym_extern_pragma, 7490), (sym_wasm_pragma, 3150), (sym_warn_pragma, 7490),
     (sym_allow_pragma, 3140), (sym_test_pragma, 7490), (sym_once_pragma, 7490),
     (sym_must_call_pragma, 7490), (sym_export_pragma, 7490), (sym_pou_pragma, 7194),
     (sym_direct_variable, 7675), (sym_deref_expression, 2373), (sym_variable, 7599),
     (sym_var_access, 2373), (sym_input_decls, 3196), (sym_output_decls, 3196),
     (sym_in_out_decls, 3196), (sym_var_decls, 3196), (sym_temp_var_decls, 3196),
     (sym_external_var_decls, 3197), (sym_global_var_decls, 2947), (sym_func_body, 9163),
     (sym_method_decl, 3159), (sym__method_decl_variables, 2368), (sym_prog_access_decls, 3043),
     (sym_config_init, 3047), (sym_variable_access, 7530), (sym_func_call, 2961),
     (sym_stmt_list, 8165), (sym__stmt, 2024), (sym_assign, 3150), (sym_if_stmt, 3150),
     (sym_case_stmt, 3150), (sym_for_stmt, 3150), (sym_while_stmt, 3150), (sym_repeat_stmt, 3150),
     (sym_raise_stmt, 3150), (sym_try_stmt, 3150), (sym_ERR_clause_outside_try, 3150),
     (sym_begin_path_expression, 2943), (sym_invocation, 2934), (sym_any_invocation, 2935),
     (sym_this_invocation, 2641), (sym_super_invocation, 2641), (sym_super_body_invocation, 2935),
     (sym_path_expression, 2627), (sym_field_expression, 2373), (sym_index_expression, 2373),
     (sym_ladder_diagram, 8165), (sym_fb_diagram, 8165), (aux_sym_func_decl_repeat1, 7194),
     (aux_sym_method_decl_repeat1, 2368), (aux_sym_stmt_list_repeat1, 2024),
     (aux_sym_ladder_diagram_repeat1, 7628), (aux_sym_fb_diagram_repeat1, 7633),
     (sym_identifier, 298), (aux_sym_ERR_unexpected_this_in_path_token1, 304),
     (aux_sym_ERR_unexpected_super_in_path_token1, 306), (sym_line_comment, 3),
     (anon_sym_LBRACE, 308), (aux_sym_test_pragma_token1, 9), (aux_sym_once_pragma_token1, 11),
     (aux_sym_must_call_pragma_token1, 13), (aux_sym_export_pragma_token1, 15),
     (anon_sym_SEMI, 310), (anon_sym_PERCENT, 312), (aux_sym_input_decls_token1, 2094),
     (aux_sym_output_decls_token1, 2096), (aux_sym_in_out_decls_token1, 318),
     (aux_sym_var_decls_token1, 2098), (aux_sym_temp_var_decls_token1, 322),
     (aux_sym_external_var_decls_token1, 324), (aux_sym_global_var_decls_token1, 326),
     (aux_sym_method_decl_token1, 330), (aux_sym_method_decl_token3, 2610),
     (aux_sym_prog_access_decls_token1, 332), (aux_sym_config_init_token1, 336),
     (aux_sym__stmt_token1, 340), (aux_sym__stmt_token2, 340), (aux_sym__stmt_token3, 340),
     (aux_sym_if_stmt_token1, 342), (aux_sym_case_stmt_token1, 344), (aux_sym_for_stmt_token1, 346),
     (aux_sym_while_stmt_token1, 348), (aux_sym_repeat_stmt_token1, 350),
     (aux_sym_raise_stmt_token1, 352), (aux_sym_try_stmt_token1, 354),
     (aux_sym_try_stmt_token2, 356), (aux_sym_catch_clause_token1, 356),
     (aux_sym_finally_clause_token1, 356), (sym_ld_rung, 2102), (sym_fbd_network, 2104),
     (sym_c_style_comment, 3), (sym_pascal_style_comment, 3), (sym_pragma, 3)]"

lemma ts_parse_row_1075_scan: "row_scan tokens_63_2 0 ts_parse_row_1075 = Some (Suc (Suc (Suc (Suc 0))))"
  unfolding ts_parse_row_1075_def by simp

text \<open>Lines 175150 to 175253.\<close>

definition ts_parse_row_1076 :: parse_row where
  "ts_parse_row_1076 =
    [(sym_ERR_assign_func_call, 7530), (sym_ERR_unexpected_this_in_path, 2372),
     (sym_ERR_unexpected_super_in_path, 2372), (sym_ERR_var_access_not_allowed, 3196),
     (sym_ERR_var_config_not_allowed, 3196), (sym_ERR_var_external_not_allowed, 3196),
     (sym_ERR_var_global_not_allowed, 3196), (sym_ERR_method_decl_in_body, 3150),
     (sym_extern_pragma, 7490), (sym_wasm_pragma, 3150), (sym_warn_pragma, 7490),
     (sym_allow_pragma, 3140), (sym_test_pragma, 7490), (sym_once_pragma, 7490),
     (sym_must_call_pragma, 7490), (sym_export_pragma, 7490), (sym_pou_pragma, 7194),
     (sym_direct_variable, 7675), (sym_deref_expression, 2373), (sym_variable, 7599),
     (sym_var_access, 2373), (sym_input_decls, 3196), (sym_output_decls, 3196),
     (sym_in_out_decls, 3196), (sym_var_decls, 3196), (sym_temp_var_decls, 3196),
     (sym_external_var_decls, 3197), (sym_global_var_decls, 2947), (sym_func_body, 10406),
     (sym_method_decl, 3159), (sym__method_decl_variables, 2368), (sym_prog_access_decls, 3043),
     (sym_config_init, 3047), (sym_variable_access, 7530), (sym_func_call, 2961),
     (sym_stmt_list, 8165), (sym__stmt, 2024), (sym_assign, 3150), (sym_if_stmt, 3150),
     (sym_case_stmt, 3150), (sym_for_stmt, 3150), (sym_while_stmt, 3150), (sym_repeat_stmt, 3150),
     (sym_raise_stmt, 3150), (sym_try_stmt, 3150), (sym_ERR_clause_outside_try, 3150),
     (sym_begin_path_expression, 2943), (sym_invocation, 2934), (sym_any_invocation, 2935),
     (sym_this_invocation, 2641), (sym_super_invocation, 2641), (sym_super_body_invocation, 2935),
     (sym_path_expression, 2627), (sym_field_expression, 2373), (sym_index_expression, 2373),
     (sym_ladder_diagram, 8165), (sym_fb_diagram, 8165), (aux_sym_func_decl_repeat1, 7194),
     (aux_sym_method_decl_repeat1, 2368), (aux_sym_stmt_list_repeat1, 2024),
     (aux_sym_ladder_diagram_repeat1, 7628), (aux_sym_fb_diagram_repeat1, 7633),
     (sym_identifier, 298), (aux_sym_ERR_unexpected_this_in_path_token1, 304),
     (aux_sym_ERR_unexpected_super_in_path_token1, 306), (sym_line_comment, 3),
     (anon_sym_LBRACE, 308), (aux_sym_test_pragma_token1, 9), (aux_sym_once_pragma_token1, 11),
     (aux_sym_must_call_pragma_token1, 13), (aux_sym_export_pragma_token1, 15),
     (anon_sym_SEMI, 310), (anon_sym_PERCENT, 312), (aux_sym_input_decls_token1, 2094),
     (aux_sym_output_decls_token1, 2096), (aux_sym_in_out_decls_token1, 318),
     (aux_sym_var_decls_token1, 2098), (aux_sym_temp_var_decls_token1, 322),
     (aux_sym_external_var_decls_token1, 324), (aux_sym_global_var_decls_token1, 326),
     (aux_sym_method_decl_token1, 330), (aux_sym_method_decl_token3, 2612),
     (aux_sym_prog_access_decls_token1, 332), (aux_sym_config_init_token1, 336),
     (aux_sym__stmt_token1, 340), (aux_sym__stmt_token2, 340), (aux_sym__stmt_token3, 340),
     (aux_sym_if_stmt_token1, 342), (aux_sym_case_stmt_token1, 344), (aux_sym_for_stmt_token1, 346),
     (aux_sym_while_stmt_token1, 348), (aux_sym_repeat_stmt_token1, 350),
     (aux_sym_raise_stmt_token1, 352), (aux_sym_try_stmt_token1, 354),
     (aux_sym_try_stmt_token2, 356), (aux_sym_catch_clause_token1, 356),
     (aux_sym_finally_clause_token1, 356), (sym_ld_rung, 2102), (sym_fbd_network, 2104),
     (sym_c_style_comment, 3), (sym_pascal_style_comment, 3), (sym_pragma, 3)]"

lemma ts_parse_row_1076_scan: "row_scan tokens_63_2 0 ts_parse_row_1076 = Some (Suc (Suc (Suc (Suc 0))))"
  unfolding ts_parse_row_1076_def by simp

text \<open>Lines 175254 to 175357.\<close>

definition ts_parse_row_1077 :: parse_row where
  "ts_parse_row_1077 =
    [(sym_ERR_assign_func_call, 7530), (sym_ERR_unexpected_this_in_path, 2372),
     (sym_ERR_unexpected_super_in_path, 2372), (sym_ERR_var_access_not_allowed, 3196),
     (sym_ERR_var_config_not_allowed, 3196), (sym_ERR_var_external_not_allowed, 3196),
     (sym_ERR_var_global_not_allowed, 3196), (sym_ERR_method_decl_in_body, 3150),
     (sym_extern_pragma, 7490), (sym_wasm_pragma, 3150), (sym_warn_pragma, 7490),
     (sym_allow_pragma, 3140), (sym_test_pragma, 7490), (sym_once_pragma, 7490),
     (sym_must_call_pragma, 7490), (sym_export_pragma, 7490), (sym_pou_pragma, 7194),
     (sym_direct_variable, 7675), (sym_deref_expression, 2373), (sym_variable, 7599),
     (sym_var_access, 2373), (sym_input_decls, 3196), (sym_output_decls, 3196),
     (sym_in_out_decls, 3196), (sym_var_decls, 3196), (sym_temp_var_decls, 3196),
     (sym_external_var_decls, 3197), (sym_global_var_decls, 2947), (sym_func_body, 10408),
     (sym_method_decl, 3159), (sym__method_decl_variables, 2368), (sym_prog_access_decls, 3043),
     (sym_config_init, 3047), (sym_variable_access, 7530), (sym_func_call, 2961),
     (sym_stmt_list, 8165), (sym__stmt, 2024), (sym_assign, 3150), (sym_if_stmt, 3150),
     (sym_case_stmt, 3150), (sym_for_stmt, 3150), (sym_while_stmt, 3150), (sym_repeat_stmt, 3150),
     (sym_raise_stmt, 3150), (sym_try_stmt, 3150), (sym_ERR_clause_outside_try, 3150),
     (sym_begin_path_expression, 2943), (sym_invocation, 2934), (sym_any_invocation, 2935),
     (sym_this_invocation, 2641), (sym_super_invocation, 2641), (sym_super_body_invocation, 2935),
     (sym_path_expression, 2627), (sym_field_expression, 2373), (sym_index_expression, 2373),
     (sym_ladder_diagram, 8165), (sym_fb_diagram, 8165), (aux_sym_func_decl_repeat1, 7194),
     (aux_sym_method_decl_repeat1, 2368), (aux_sym_stmt_list_repeat1, 2024),
     (aux_sym_ladder_diagram_repeat1, 7628), (aux_sym_fb_diagram_repeat1, 7633),
     (sym_identifier, 298), (aux_sym_ERR_unexpected_this_in_path_token1, 304),
     (aux_sym_ERR_unexpected_super_in_path_token1, 306), (sym_line_comment, 3),
     (anon_sym_LBRACE, 308), (aux_sym_test_pragma_token1, 9), (aux_sym_once_pragma_token1, 11),
     (aux_sym_must_call_pragma_token1, 13), (aux_sym_export_pragma_token1, 15),
     (anon_sym_SEMI, 310), (anon_sym_PERCENT, 312), (aux_sym_input_decls_token1, 2094),
     (aux_sym_output_decls_token1, 2096), (aux_sym_in_out_decls_token1, 318),
     (aux_sym_var_decls_token1, 2098), (aux_sym_temp_var_decls_token1, 322),
     (aux_sym_external_var_decls_token1, 324), (aux_sym_global_var_decls_token1, 326),
     (aux_sym_method_decl_token1, 330), (aux_sym_method_decl_token3, 2614),
     (aux_sym_prog_access_decls_token1, 332), (aux_sym_config_init_token1, 336),
     (aux_sym__stmt_token1, 340), (aux_sym__stmt_token2, 340), (aux_sym__stmt_token3, 340),
     (aux_sym_if_stmt_token1, 342), (aux_sym_case_stmt_token1, 344), (aux_sym_for_stmt_token1, 346),
     (aux_sym_while_stmt_token1, 348), (aux_sym_repeat_stmt_token1, 350),
     (aux_sym_raise_stmt_token1, 352), (aux_sym_try_stmt_token1, 354),
     (aux_sym_try_stmt_token2, 356), (aux_sym_catch_clause_token1, 356),
     (aux_sym_finally_clause_token1, 356), (sym_ld_rung, 2102), (sym_fbd_network, 2104),
     (sym_c_style_comment, 3), (sym_pascal_style_comment, 3), (sym_pragma, 3)]"

lemma ts_parse_row_1077_scan: "row_scan tokens_63_2 0 ts_parse_row_1077 = Some (Suc (Suc (Suc (Suc 0))))"
  unfolding ts_parse_row_1077_def by simp

text \<open>Lines 175358 to 175461.\<close>

definition ts_parse_row_1078 :: parse_row where
  "ts_parse_row_1078 =
    [(sym_ERR_assign_func_call, 7530), (sym_ERR_unexpected_this_in_path, 2372),
     (sym_ERR_unexpected_super_in_path, 2372), (sym_ERR_var_access_not_allowed, 3196),
     (sym_ERR_var_config_not_allowed, 3196), (sym_ERR_var_external_not_allowed, 3196),
     (sym_ERR_var_global_not_allowed, 3196), (sym_ERR_method_decl_in_body, 3150),
     (sym_extern_pragma, 7490), (sym_wasm_pragma, 3150), (sym_warn_pragma, 7490),
     (sym_allow_pragma, 3140), (sym_test_pragma, 7490), (sym_once_pragma, 7490),
     (sym_must_call_pragma, 7490), (sym_export_pragma, 7490), (sym_pou_pragma, 7194),
     (sym_direct_variable, 7675), (sym_deref_expression, 2373), (sym_variable, 7599),
     (sym_var_access, 2373), (sym_input_decls, 3196), (sym_output_decls, 3196),
     (sym_in_out_decls, 3196), (sym_var_decls, 3196), (sym_temp_var_decls, 3196),
     (sym_external_var_decls, 3197), (sym_global_var_decls, 2947), (sym_func_body, 10409),
     (sym_method_decl, 3159), (sym__method_decl_variables, 1089), (sym_prog_access_decls, 3043),
     (sym_config_init, 3047), (sym_variable_access, 7530), (sym_func_call, 2961),
     (sym_stmt_list, 8165), (sym__stmt, 2024), (sym_assign, 3150), (sym_if_stmt, 3150),
     (sym_case_stmt, 3150), (sym_for_stmt, 3150), (sym_while_stmt, 3150), (sym_repeat_stmt, 3150),
     (sym_raise_stmt, 3150), (sym_try_stmt, 3150), (sym_ERR_clause_outside_try, 3150),
     (sym_begin_path_expression, 2943), (sym_invocation, 2934), (sym_any_invocation, 2935),
     (sym_this_invocation, 2641), (sym_super_invocation, 2641), (sym_super_body_invocation, 2935),
     (sym_path_expression, 2627), (sym_field_expression, 2373), (sym_index_expression, 2373),
     (sym_ladder_diagram, 8165), (sym_fb_diagram, 8165), (aux_sym_func_decl_repeat1, 7194),
     (aux_sym_method_decl_repeat1, 1089), (aux_sym_stmt_list_repeat1, 2024),
     (aux_sym_ladder_diagram_repeat1, 7628), (aux_sym_fb_diagram_repeat1, 7633),
     (sym_identifier, 298), (aux_sym_ERR_unexpected_this_in_path_token1, 304),
     (aux_sym_ERR_unexpected_super_in_path_token1, 306), (sym_line_comment, 3),
     (anon_sym_LBRACE, 308), (aux_sym_test_pragma_token1, 9), (aux_sym_once_pragma_token1, 11),
     (aux_sym_must_call_pragma_token1, 13), (aux_sym_export_pragma_token1, 15),
     (anon_sym_SEMI, 310), (anon_sym_PERCENT, 312), (aux_sym_input_decls_token1, 2094),
     (aux_sym_output_decls_token1, 2096), (aux_sym_in_out_decls_token1, 318),
     (aux_sym_var_decls_token1, 2098), (aux_sym_temp_var_decls_token1, 322),
     (aux_sym_external_var_decls_token1, 324), (aux_sym_global_var_decls_token1, 326),
     (aux_sym_method_decl_token1, 330), (aux_sym_method_decl_token3, 2616),
     (aux_sym_prog_access_decls_token1, 332), (aux_sym_config_init_token1, 336),
     (aux_sym__stmt_token1, 340), (aux_sym__stmt_token2, 340), (aux_sym__stmt_token3, 340),
     (aux_sym_if_stmt_token1, 342), (aux_sym_case_stmt_token1, 344), (aux_sym_for_stmt_token1, 346),
     (aux_sym_while_stmt_token1, 348), (aux_sym_repeat_stmt_token1, 350),
     (aux_sym_raise_stmt_token1, 352), (aux_sym_try_stmt_token1, 354),
     (aux_sym_try_stmt_token2, 356), (aux_sym_catch_clause_token1, 356),
     (aux_sym_finally_clause_token1, 356), (sym_ld_rung, 2102), (sym_fbd_network, 2104),
     (sym_c_style_comment, 3), (sym_pascal_style_comment, 3), (sym_pragma, 3)]"

lemma ts_parse_row_1078_scan: "row_scan tokens_63_2 0 ts_parse_row_1078 = Some (Suc (Suc (Suc (Suc 0))))"
  unfolding ts_parse_row_1078_def by simp

text \<open>Lines 175462 to 175565.\<close>

definition ts_parse_row_1079 :: parse_row where
  "ts_parse_row_1079 =
    [(sym_ERR_assign_func_call, 7530), (sym_ERR_unexpected_this_in_path, 2372),
     (sym_ERR_unexpected_super_in_path, 2372), (sym_ERR_var_access_not_allowed, 3196),
     (sym_ERR_var_config_not_allowed, 3196), (sym_ERR_var_external_not_allowed, 3196),
     (sym_ERR_var_global_not_allowed, 3196), (sym_ERR_method_decl_in_body, 3150),
     (sym_extern_pragma, 7490), (sym_wasm_pragma, 3150), (sym_warn_pragma, 7490),
     (sym_allow_pragma, 3140), (sym_test_pragma, 7490), (sym_once_pragma, 7490),
     (sym_must_call_pragma, 7490), (sym_export_pragma, 7490), (sym_pou_pragma, 7194),
     (sym_direct_variable, 7675), (sym_deref_expression, 2373), (sym_variable, 7599),
     (sym_var_access, 2373), (sym_input_decls, 3196), (sym_output_decls, 3196),
     (sym_in_out_decls, 3196), (sym_var_decls, 3196), (sym_temp_var_decls, 3196),
     (sym_external_var_decls, 3197), (sym_global_var_decls, 2947), (sym_func_body, 10411),
     (sym_method_decl, 3159), (sym__method_decl_variables, 2368), (sym_prog_access_decls, 3043),
     (sym_config_init, 3047), (sym_variable_access, 7530), (sym_func_call, 2961),
     (sym_stmt_list, 8165), (sym__stmt, 2024), (sym_assign, 3150), (sym_if_stmt, 3150),
     (sym_case_stmt, 3150), (sym_for_stmt, 3150), (sym_while_stmt, 3150), (sym_repeat_stmt, 3150),
     (sym_raise_stmt, 3150), (sym_try_stmt, 3150), (sym_ERR_clause_outside_try, 3150),
     (sym_begin_path_expression, 2943), (sym_invocation, 2934), (sym_any_invocation, 2935),
     (sym_this_invocation, 2641), (sym_super_invocation, 2641), (sym_super_body_invocation, 2935),
     (sym_path_expression, 2627), (sym_field_expression, 2373), (sym_index_expression, 2373),
     (sym_ladder_diagram, 8165), (sym_fb_diagram, 8165), (aux_sym_func_decl_repeat1, 7194),
     (aux_sym_method_decl_repeat1, 2368), (aux_sym_stmt_list_repeat1, 2024),
     (aux_sym_ladder_diagram_repeat1, 7628), (aux_sym_fb_diagram_repeat1, 7633),
     (sym_identifier, 298), (aux_sym_ERR_unexpected_this_in_path_token1, 304),
     (aux_sym_ERR_unexpected_super_in_path_token1, 306), (sym_line_comment, 3),
     (anon_sym_LBRACE, 308), (aux_sym_test_pragma_token1, 9), (aux_sym_once_pragma_token1, 11),
     (aux_sym_must_call_pragma_token1, 13), (aux_sym_export_pragma_token1, 15),
     (anon_sym_SEMI, 310), (anon_sym_PERCENT, 312), (aux_sym_input_decls_token1, 2094),
     (aux_sym_output_decls_token1, 2096), (aux_sym_in_out_decls_token1, 318),
     (aux_sym_var_decls_token1, 2098), (aux_sym_temp_var_decls_token1, 322),
     (aux_sym_external_var_decls_token1, 324), (aux_sym_global_var_decls_token1, 326),
     (aux_sym_method_decl_token1, 330), (aux_sym_method_decl_token3, 2618),
     (aux_sym_prog_access_decls_token1, 332), (aux_sym_config_init_token1, 336),
     (aux_sym__stmt_token1, 340), (aux_sym__stmt_token2, 340), (aux_sym__stmt_token3, 340),
     (aux_sym_if_stmt_token1, 342), (aux_sym_case_stmt_token1, 344), (aux_sym_for_stmt_token1, 346),
     (aux_sym_while_stmt_token1, 348), (aux_sym_repeat_stmt_token1, 350),
     (aux_sym_raise_stmt_token1, 352), (aux_sym_try_stmt_token1, 354),
     (aux_sym_try_stmt_token2, 356), (aux_sym_catch_clause_token1, 356),
     (aux_sym_finally_clause_token1, 356), (sym_ld_rung, 2102), (sym_fbd_network, 2104),
     (sym_c_style_comment, 3), (sym_pascal_style_comment, 3), (sym_pragma, 3)]"

lemma ts_parse_row_1079_scan: "row_scan tokens_63_2 0 ts_parse_row_1079 = Some (Suc (Suc (Suc (Suc 0))))"
  unfolding ts_parse_row_1079_def by simp

text \<open>Lines 175566 to 175669.\<close>

definition ts_parse_row_1080 :: parse_row where
  "ts_parse_row_1080 =
    [(sym_ERR_assign_func_call, 7530), (sym_ERR_unexpected_this_in_path, 2372),
     (sym_ERR_unexpected_super_in_path, 2372), (sym_ERR_var_access_not_allowed, 3196),
     (sym_ERR_var_config_not_allowed, 3196), (sym_ERR_var_external_not_allowed, 3196),
     (sym_ERR_var_global_not_allowed, 3196), (sym_ERR_method_decl_in_body, 3150),
     (sym_extern_pragma, 7490), (sym_wasm_pragma, 3150), (sym_warn_pragma, 7490),
     (sym_allow_pragma, 3140), (sym_test_pragma, 7490), (sym_once_pragma, 7490),
     (sym_must_call_pragma, 7490), (sym_export_pragma, 7490), (sym_pou_pragma, 7194),
     (sym_direct_variable, 7675), (sym_deref_expression, 2373), (sym_variable, 7599),
     (sym_var_access, 2373), (sym_input_decls, 3196), (sym_output_decls, 3196),
     (sym_in_out_decls, 3196), (sym_var_decls, 3196), (sym_temp_var_decls, 3196),
     (sym_external_var_decls, 3197), (sym_global_var_decls, 2947), (sym_func_body, 9964),
     (sym_method_decl, 3159), (sym__method_decl_variables, 966), (sym_prog_access_decls, 3043),
     (sym_config_init, 3047), (sym_variable_access, 7530), (sym_func_call, 2961),
     (sym_stmt_list, 8165), (sym__stmt, 2024), (sym_assign, 3150), (sym_if_stmt, 3150),
     (sym_case_stmt, 3150), (sym_for_stmt, 3150), (sym_while_stmt, 3150), (sym_repeat_stmt, 3150),
     (sym_raise_stmt, 3150), (sym_try_stmt, 3150), (sym_ERR_clause_outside_try, 3150),
     (sym_begin_path_expression, 2943), (sym_invocation, 2934), (sym_any_invocation, 2935),
     (sym_this_invocation, 2641), (sym_super_invocation, 2641), (sym_super_body_invocation, 2935),
     (sym_path_expression, 2627), (sym_field_expression, 2373), (sym_index_expression, 2373),
     (sym_ladder_diagram, 8165), (sym_fb_diagram, 8165), (aux_sym_func_decl_repeat1, 7194),
     (aux_sym_method_decl_repeat1, 966), (aux_sym_stmt_list_repeat1, 2024),
     (aux_sym_ladder_diagram_repeat1, 7628), (aux_sym_fb_diagram_repeat1, 7633),
     (sym_identifier, 298), (aux_sym_ERR_unexpected_this_in_path_token1, 304),
     (aux_sym_ERR_unexpected_super_in_path_token1, 306), (sym_line_comment, 3),
     (anon_sym_LBRACE, 308), (aux_sym_test_pragma_token1, 9), (aux_sym_once_pragma_token1, 11),
     (aux_sym_must_call_pragma_token1, 13), (aux_sym_export_pragma_token1, 15),
     (anon_sym_SEMI, 310), (anon_sym_PERCENT, 312), (aux_sym_input_decls_token1, 2094),
     (aux_sym_output_decls_token1, 2096), (aux_sym_in_out_decls_token1, 318),
     (aux_sym_var_decls_token1, 2098), (aux_sym_temp_var_decls_token1, 322),
     (aux_sym_external_var_decls_token1, 324), (aux_sym_global_var_decls_token1, 326),
     (aux_sym_method_decl_token1, 330), (aux_sym_method_decl_token3, 2620),
     (aux_sym_prog_access_decls_token1, 332), (aux_sym_config_init_token1, 336),
     (aux_sym__stmt_token1, 340), (aux_sym__stmt_token2, 340), (aux_sym__stmt_token3, 340),
     (aux_sym_if_stmt_token1, 342), (aux_sym_case_stmt_token1, 344), (aux_sym_for_stmt_token1, 346),
     (aux_sym_while_stmt_token1, 348), (aux_sym_repeat_stmt_token1, 350),
     (aux_sym_raise_stmt_token1, 352), (aux_sym_try_stmt_token1, 354),
     (aux_sym_try_stmt_token2, 356), (aux_sym_catch_clause_token1, 356),
     (aux_sym_finally_clause_token1, 356), (sym_ld_rung, 2102), (sym_fbd_network, 2104),
     (sym_c_style_comment, 3), (sym_pascal_style_comment, 3), (sym_pragma, 3)]"

lemma ts_parse_row_1080_scan: "row_scan tokens_63_2 0 ts_parse_row_1080 = Some (Suc (Suc (Suc (Suc 0))))"
  unfolding ts_parse_row_1080_def by simp

text \<open>Lines 175670 to 175773.\<close>

definition ts_parse_row_1081 :: parse_row where
  "ts_parse_row_1081 =
    [(sym_ERR_assign_func_call, 7530), (sym_ERR_unexpected_this_in_path, 2372),
     (sym_ERR_unexpected_super_in_path, 2372), (sym_ERR_var_access_not_allowed, 3196),
     (sym_ERR_var_config_not_allowed, 3196), (sym_ERR_var_external_not_allowed, 3196),
     (sym_ERR_var_global_not_allowed, 3196), (sym_ERR_method_decl_in_body, 3150),
     (sym_extern_pragma, 7490), (sym_wasm_pragma, 3150), (sym_warn_pragma, 7490),
     (sym_allow_pragma, 3140), (sym_test_pragma, 7490), (sym_once_pragma, 7490),
     (sym_must_call_pragma, 7490), (sym_export_pragma, 7490), (sym_pou_pragma, 7194),
     (sym_direct_variable, 7675), (sym_deref_expression, 2373), (sym_variable, 7599),
     (sym_var_access, 2373), (sym_input_decls, 3196), (sym_output_decls, 3196),
     (sym_in_out_decls, 3196), (sym_var_decls, 3196), (sym_temp_var_decls, 3196),
     (sym_external_var_decls, 3197), (sym_global_var_decls, 2947), (sym_func_body, 10414),
     (sym_method_decl, 3159), (sym__method_decl_variables, 2368), (sym_prog_access_decls, 3043),
     (sym_config_init, 3047), (sym_variable_access, 7530), (sym_func_call, 2961),
     (sym_stmt_list, 8165), (sym__stmt, 2024), (sym_assign, 3150), (sym_if_stmt, 3150),
     (sym_case_stmt, 3150), (sym_for_stmt, 3150), (sym_while_stmt, 3150), (sym_repeat_stmt, 3150),
     (sym_raise_stmt, 3150), (sym_try_stmt, 3150), (sym_ERR_clause_outside_try, 3150),
     (sym_begin_path_expression, 2943), (sym_invocation, 2934), (sym_any_invocation, 2935),
     (sym_this_invocation, 2641), (sym_super_invocation, 2641), (sym_super_body_invocation, 2935),
     (sym_path_expression, 2627), (sym_field_expression, 2373), (sym_index_expression, 2373),
     (sym_ladder_diagram, 8165), (sym_fb_diagram, 8165), (aux_sym_func_decl_repeat1, 7194),
     (aux_sym_method_decl_repeat1, 2368), (aux_sym_stmt_list_repeat1, 2024),
     (aux_sym_ladder_diagram_repeat1, 7628), (aux_sym_fb_diagram_repeat1, 7633),
     (sym_identifier, 298), (aux_sym_ERR_unexpected_this_in_path_token1, 304),
     (aux_sym_ERR_unexpected_super_in_path_token1, 306), (sym_line_comment, 3),
     (anon_sym_LBRACE, 308), (aux_sym_test_pragma_token1, 9), (aux_sym_once_pragma_token1, 11),
     (aux_sym_must_call_pragma_token1, 13), (aux_sym_export_pragma_token1, 15),
     (anon_sym_SEMI, 310), (anon_sym_PERCENT, 312), (aux_sym_input_decls_token1, 2094),
     (aux_sym_output_decls_token1, 2096), (aux_sym_in_out_decls_token1, 318),
     (aux_sym_var_decls_token1, 2098), (aux_sym_temp_var_decls_token1, 322),
     (aux_sym_external_var_decls_token1, 324), (aux_sym_global_var_decls_token1, 326),
     (aux_sym_method_decl_token1, 330), (aux_sym_method_decl_token3, 2622),
     (aux_sym_prog_access_decls_token1, 332), (aux_sym_config_init_token1, 336),
     (aux_sym__stmt_token1, 340), (aux_sym__stmt_token2, 340), (aux_sym__stmt_token3, 340),
     (aux_sym_if_stmt_token1, 342), (aux_sym_case_stmt_token1, 344), (aux_sym_for_stmt_token1, 346),
     (aux_sym_while_stmt_token1, 348), (aux_sym_repeat_stmt_token1, 350),
     (aux_sym_raise_stmt_token1, 352), (aux_sym_try_stmt_token1, 354),
     (aux_sym_try_stmt_token2, 356), (aux_sym_catch_clause_token1, 356),
     (aux_sym_finally_clause_token1, 356), (sym_ld_rung, 2102), (sym_fbd_network, 2104),
     (sym_c_style_comment, 3), (sym_pascal_style_comment, 3), (sym_pragma, 3)]"

lemma ts_parse_row_1081_scan: "row_scan tokens_63_2 0 ts_parse_row_1081 = Some (Suc (Suc (Suc (Suc 0))))"
  unfolding ts_parse_row_1081_def by simp

text \<open>Lines 175774 to 175877.\<close>

definition ts_parse_row_1082 :: parse_row where
  "ts_parse_row_1082 =
    [(sym_ERR_assign_func_call, 7530), (sym_ERR_unexpected_this_in_path, 2372),
     (sym_ERR_unexpected_super_in_path, 2372), (sym_ERR_var_access_not_allowed, 3196),
     (sym_ERR_var_config_not_allowed, 3196), (sym_ERR_var_external_not_allowed, 3196),
     (sym_ERR_var_global_not_allowed, 3196), (sym_ERR_method_decl_in_body, 3150),
     (sym_extern_pragma, 7490), (sym_wasm_pragma, 3150), (sym_warn_pragma, 7490),
     (sym_allow_pragma, 3140), (sym_test_pragma, 7490), (sym_once_pragma, 7490),
     (sym_must_call_pragma, 7490), (sym_export_pragma, 7490), (sym_pou_pragma, 7194),
     (sym_direct_variable, 7675), (sym_deref_expression, 2373), (sym_variable, 7599),
     (sym_var_access, 2373), (sym_input_decls, 3196), (sym_output_decls, 3196),
     (sym_in_out_decls, 3196), (sym_var_decls, 3196), (sym_temp_var_decls, 3196),
     (sym_external_var_decls, 3197), (sym_global_var_decls, 2947), (sym_func_body, 10415),
     (sym_method_decl, 3159), (sym__method_decl_variables, 2368), (sym_prog_access_decls, 3043),
     (sym_config_init, 3047), (sym_variable_access, 7530), (sym_func_call, 2961),
     (sym_stmt_list, 8165), (sym__stmt, 2024), (sym_assign, 3150), (sym_if_stmt, 3150),
     (sym_case_stmt, 3150), (sym_for_stmt, 3150), (sym_while_stmt, 3150), (sym_repeat_stmt, 3150),
     (sym_raise_stmt, 3150), (sym_try_stmt, 3150), (sym_ERR_clause_outside_try, 3150),
     (sym_begin_path_expression, 2943), (sym_invocation, 2934), (sym_any_invocation, 2935),
     (sym_this_invocation, 2641), (sym_super_invocation, 2641), (sym_super_body_invocation, 2935),
     (sym_path_expression, 2627), (sym_field_expression, 2373), (sym_index_expression, 2373),
     (sym_ladder_diagram, 8165), (sym_fb_diagram, 8165), (aux_sym_func_decl_repeat1, 7194),
     (aux_sym_method_decl_repeat1, 2368), (aux_sym_stmt_list_repeat1, 2024),
     (aux_sym_ladder_diagram_repeat1, 7628), (aux_sym_fb_diagram_repeat1, 7633),
     (sym_identifier, 298), (aux_sym_ERR_unexpected_this_in_path_token1, 304),
     (aux_sym_ERR_unexpected_super_in_path_token1, 306), (sym_line_comment, 3),
     (anon_sym_LBRACE, 308), (aux_sym_test_pragma_token1, 9), (aux_sym_once_pragma_token1, 11),
     (aux_sym_must_call_pragma_token1, 13), (aux_sym_export_pragma_token1, 15),
     (anon_sym_SEMI, 310), (anon_sym_PERCENT, 312), (aux_sym_input_decls_token1, 2094),
     (aux_sym_output_decls_token1, 2096), (aux_sym_in_out_decls_token1, 318),
     (aux_sym_var_decls_token1, 2098), (aux_sym_temp_var_decls_token1, 322),
     (aux_sym_external_var_decls_token1, 324), (aux_sym_global_var_decls_token1, 326),
     (aux_sym_method_decl_token1, 330), (aux_sym_method_decl_token3, 2624),
     (aux_sym_prog_access_decls_token1, 332), (aux_sym_config_init_token1, 336),
     (aux_sym__stmt_token1, 340), (aux_sym__stmt_token2, 340), (aux_sym__stmt_token3, 340),
     (aux_sym_if_stmt_token1, 342), (aux_sym_case_stmt_token1, 344), (aux_sym_for_stmt_token1, 346),
     (aux_sym_while_stmt_token1, 348), (aux_sym_repeat_stmt_token1, 350),
     (aux_sym_raise_stmt_token1, 352), (aux_sym_try_stmt_token1, 354),
     (aux_sym_try_stmt_token2, 356), (aux_sym_catch_clause_token1, 356),
     (aux_sym_finally_clause_token1, 356), (sym_ld_rung, 2102), (sym_fbd_network, 2104),
     (sym_c_style_comment, 3), (sym_pascal_style_comment, 3), (sym_pragma, 3)]"

lemma ts_parse_row_1082_scan: "row_scan tokens_63_2 0 ts_parse_row_1082 = Some (Suc (Suc (Suc (Suc 0))))"
  unfolding ts_parse_row_1082_def by simp

text \<open>Lines 175878 to 175981.\<close>

definition ts_parse_row_1083 :: parse_row where
  "ts_parse_row_1083 =
    [(sym_ERR_assign_func_call, 7530), (sym_ERR_unexpected_this_in_path, 2372),
     (sym_ERR_unexpected_super_in_path, 2372), (sym_ERR_var_access_not_allowed, 3196),
     (sym_ERR_var_config_not_allowed, 3196), (sym_ERR_var_external_not_allowed, 3196),
     (sym_ERR_var_global_not_allowed, 3196), (sym_ERR_method_decl_in_body, 3150),
     (sym_extern_pragma, 7490), (sym_wasm_pragma, 3150), (sym_warn_pragma, 7490),
     (sym_allow_pragma, 3140), (sym_test_pragma, 7490), (sym_once_pragma, 7490),
     (sym_must_call_pragma, 7490), (sym_export_pragma, 7490), (sym_pou_pragma, 7194),
     (sym_direct_variable, 7675), (sym_deref_expression, 2373), (sym_variable, 7599),
     (sym_var_access, 2373), (sym_input_decls, 3196), (sym_output_decls, 3196),
     (sym_in_out_decls, 3196), (sym_var_decls, 3196), (sym_temp_var_decls, 3196),
     (sym_external_var_decls, 3197), (sym_global_var_decls, 2947), (sym_func_body, 10416),
     (sym_method_decl, 3159), (sym__method_decl_variables, 1091), (sym_prog_access_decls, 3043),
     (sym_config_init, 3047), (sym_variable_access, 7530), (sym_func_call, 2961),
     (sym_stmt_list, 8165), (sym__stmt, 2024), (sym_assign, 3150), (sym_if_stmt, 3150),
     (sym_case_stmt, 3150), (sym_for_stmt, 3150), (sym_while_stmt, 3150), (sym_repeat_stmt, 3150),
     (sym_raise_stmt, 3150), (sym_try_stmt, 3150), (sym_ERR_clause_outside_try, 3150),
     (sym_begin_path_expression, 2943), (sym_invocation, 2934), (sym_any_invocation, 2935),
     (sym_this_invocation, 2641), (sym_super_invocation, 2641), (sym_super_body_invocation, 2935),
     (sym_path_expression, 2627), (sym_field_expression, 2373), (sym_index_expression, 2373),
     (sym_ladder_diagram, 8165), (sym_fb_diagram, 8165), (aux_sym_func_decl_repeat1, 7194),
     (aux_sym_method_decl_repeat1, 1091), (aux_sym_stmt_list_repeat1, 2024),
     (aux_sym_ladder_diagram_repeat1, 7628), (aux_sym_fb_diagram_repeat1, 7633),
     (sym_identifier, 298), (aux_sym_ERR_unexpected_this_in_path_token1, 304),
     (aux_sym_ERR_unexpected_super_in_path_token1, 306), (sym_line_comment, 3),
     (anon_sym_LBRACE, 308), (aux_sym_test_pragma_token1, 9), (aux_sym_once_pragma_token1, 11),
     (aux_sym_must_call_pragma_token1, 13), (aux_sym_export_pragma_token1, 15),
     (anon_sym_SEMI, 310), (anon_sym_PERCENT, 312), (aux_sym_input_decls_token1, 2094),
     (aux_sym_output_decls_token1, 2096), (aux_sym_in_out_decls_token1, 318),
     (aux_sym_var_decls_token1, 2098), (aux_sym_temp_var_decls_token1, 322),
     (aux_sym_external_var_decls_token1, 324), (aux_sym_global_var_decls_token1, 326),
     (aux_sym_method_decl_token1, 330), (aux_sym_method_decl_token3, 2626),
     (aux_sym_prog_access_decls_token1, 332), (aux_sym_config_init_token1, 336),
     (aux_sym__stmt_token1, 340), (aux_sym__stmt_token2, 340), (aux_sym__stmt_token3, 340),
     (aux_sym_if_stmt_token1, 342), (aux_sym_case_stmt_token1, 344), (aux_sym_for_stmt_token1, 346),
     (aux_sym_while_stmt_token1, 348), (aux_sym_repeat_stmt_token1, 350),
     (aux_sym_raise_stmt_token1, 352), (aux_sym_try_stmt_token1, 354),
     (aux_sym_try_stmt_token2, 356), (aux_sym_catch_clause_token1, 356),
     (aux_sym_finally_clause_token1, 356), (sym_ld_rung, 2102), (sym_fbd_network, 2104),
     (sym_c_style_comment, 3), (sym_pascal_style_comment, 3), (sym_pragma, 3)]"

lemma ts_parse_row_1083_scan: "row_scan tokens_63_2 0 ts_parse_row_1083 = Some (Suc (Suc (Suc (Suc 0))))"
  unfolding ts_parse_row_1083_def by simp

text \<open>Lines 175982 to 176085.\<close>

definition ts_parse_row_1084 :: parse_row where
  "ts_parse_row_1084 =
    [(sym_ERR_assign_func_call, 7530), (sym_ERR_unexpected_this_in_path, 2372),
     (sym_ERR_unexpected_super_in_path, 2372), (sym_ERR_var_access_not_allowed, 3196),
     (sym_ERR_var_config_not_allowed, 3196), (sym_ERR_var_external_not_allowed, 3196),
     (sym_ERR_var_global_not_allowed, 3196), (sym_ERR_method_decl_in_body, 3150),
     (sym_extern_pragma, 7490), (sym_wasm_pragma, 3150), (sym_warn_pragma, 7490),
     (sym_allow_pragma, 3140), (sym_test_pragma, 7490), (sym_once_pragma, 7490),
     (sym_must_call_pragma, 7490), (sym_export_pragma, 7490), (sym_pou_pragma, 7194),
     (sym_direct_variable, 7675), (sym_deref_expression, 2373), (sym_variable, 7599),
     (sym_var_access, 2373), (sym_input_decls, 3196), (sym_output_decls, 3196),
     (sym_in_out_decls, 3196), (sym_var_decls, 3196), (sym_temp_var_decls, 3196),
     (sym_external_var_decls, 3197), (sym_global_var_decls, 2947), (sym_func_body, 10418),
     (sym_method_decl, 3159), (sym__method_decl_variables, 2368), (sym_prog_access_decls, 3043),
     (sym_config_init, 3047), (sym_variable_access, 7530), (sym_func_call, 2961),
     (sym_stmt_list, 8165), (sym__stmt, 2024), (sym_assign, 3150), (sym_if_stmt, 3150),
     (sym_case_stmt, 3150), (sym_for_stmt, 3150), (sym_while_stmt, 3150), (sym_repeat_stmt, 3150),
     (sym_raise_stmt, 3150), (sym_try_stmt, 3150), (sym_ERR_clause_outside_try, 3150),
     (sym_begin_path_expression, 2943), (sym_invocation, 2934), (sym_any_invocation, 2935),
     (sym_this_invocation, 2641), (sym_super_invocation, 2641), (sym_super_body_invocation, 2935),
     (sym_path_expression, 2627), (sym_field_expression, 2373), (sym_index_expression, 2373),
     (sym_ladder_diagram, 8165), (sym_fb_diagram, 8165), (aux_sym_func_decl_repeat1, 7194),
     (aux_sym_method_decl_repeat1, 2368), (aux_sym_stmt_list_repeat1, 2024),
     (aux_sym_ladder_diagram_repeat1, 7628), (aux_sym_fb_diagram_repeat1, 7633),
     (sym_identifier, 298), (aux_sym_ERR_unexpected_this_in_path_token1, 304),
     (aux_sym_ERR_unexpected_super_in_path_token1, 306), (sym_line_comment, 3),
     (anon_sym_LBRACE, 308), (aux_sym_test_pragma_token1, 9), (aux_sym_once_pragma_token1, 11),
     (aux_sym_must_call_pragma_token1, 13), (aux_sym_export_pragma_token1, 15),
     (anon_sym_SEMI, 310), (anon_sym_PERCENT, 312), (aux_sym_input_decls_token1, 2094),
     (aux_sym_output_decls_token1, 2096), (aux_sym_in_out_decls_token1, 318),
     (aux_sym_var_decls_token1, 2098), (aux_sym_temp_var_decls_token1, 322),
     (aux_sym_external_var_decls_token1, 324), (aux_sym_global_var_decls_token1, 326),
     (aux_sym_method_decl_token1, 330), (aux_sym_method_decl_token3, 2628),
     (aux_sym_prog_access_decls_token1, 332), (aux_sym_config_init_token1, 336),
     (aux_sym__stmt_token1, 340), (aux_sym__stmt_token2, 340), (aux_sym__stmt_token3, 340),
     (aux_sym_if_stmt_token1, 342), (aux_sym_case_stmt_token1, 344), (aux_sym_for_stmt_token1, 346),
     (aux_sym_while_stmt_token1, 348), (aux_sym_repeat_stmt_token1, 350),
     (aux_sym_raise_stmt_token1, 352), (aux_sym_try_stmt_token1, 354),
     (aux_sym_try_stmt_token2, 356), (aux_sym_catch_clause_token1, 356),
     (aux_sym_finally_clause_token1, 356), (sym_ld_rung, 2102), (sym_fbd_network, 2104),
     (sym_c_style_comment, 3), (sym_pascal_style_comment, 3), (sym_pragma, 3)]"

lemma ts_parse_row_1084_scan: "row_scan tokens_63_2 0 ts_parse_row_1084 = Some (Suc (Suc (Suc (Suc 0))))"
  unfolding ts_parse_row_1084_def by simp

text \<open>Lines 176086 to 176189.\<close>

definition ts_parse_row_1085 :: parse_row where
  "ts_parse_row_1085 =
    [(sym_ERR_assign_func_call, 7530), (sym_ERR_unexpected_this_in_path, 2372),
     (sym_ERR_unexpected_super_in_path, 2372), (sym_ERR_var_access_not_allowed, 3196),
     (sym_ERR_var_config_not_allowed, 3196), (sym_ERR_var_external_not_allowed, 3196),
     (sym_ERR_var_global_not_allowed, 3196), (sym_ERR_method_decl_in_body, 3150),
     (sym_extern_pragma, 7490), (sym_wasm_pragma, 3150), (sym_warn_pragma, 7490),
     (sym_allow_pragma, 3140), (sym_test_pragma, 7490), (sym_once_pragma, 7490),
     (sym_must_call_pragma, 7490), (sym_export_pragma, 7490), (sym_pou_pragma, 7194),
     (sym_direct_variable, 7675), (sym_deref_expression, 2373), (sym_variable, 7599),
     (sym_var_access, 2373), (sym_input_decls, 3196), (sym_output_decls, 3196),
     (sym_in_out_decls, 3196), (sym_var_decls, 3196), (sym_temp_var_decls, 3196),
     (sym_external_var_decls, 3197), (sym_global_var_decls, 2947), (sym_func_body, 10419),
     (sym_method_decl, 3159), (sym__method_decl_variables, 2368), (sym_prog_access_decls, 3043),
     (sym_config_init, 3047), (sym_variable_access, 7530), (sym_func_call, 2961),
     (sym_stmt_list, 8165), (sym__stmt, 2024), (sym_assign, 3150), (sym_if_stmt, 3150),
     (sym_case_stmt, 3150), (sym_for_stmt, 3150), (sym_while_stmt, 3150), (sym_repeat_stmt, 3150),
     (sym_raise_stmt, 3150), (sym_try_stmt, 3150), (sym_ERR_clause_outside_try, 3150),
     (sym_begin_path_expression, 2943), (sym_invocation, 2934), (sym_any_invocation, 2935),
     (sym_this_invocation, 2641), (sym_super_invocation, 2641), (sym_super_body_invocation, 2935),
     (sym_path_expression, 2627), (sym_field_expression, 2373), (sym_index_expression, 2373),
     (sym_ladder_diagram, 8165), (sym_fb_diagram, 8165), (aux_sym_func_decl_repeat1, 7194),
     (aux_sym_method_decl_repeat1, 2368), (aux_sym_stmt_list_repeat1, 2024),
     (aux_sym_ladder_diagram_repeat1, 7628), (aux_sym_fb_diagram_repeat1, 7633),
     (sym_identifier, 298), (aux_sym_ERR_unexpected_this_in_path_token1, 304),
     (aux_sym_ERR_unexpected_super_in_path_token1, 306), (sym_line_comment, 3),
     (anon_sym_LBRACE, 308), (aux_sym_test_pragma_token1, 9), (aux_sym_once_pragma_token1, 11),
     (aux_sym_must_call_pragma_token1, 13), (aux_sym_export_pragma_token1, 15),
     (anon_sym_SEMI, 310), (anon_sym_PERCENT, 312), (aux_sym_input_decls_token1, 2094),
     (aux_sym_output_decls_token1, 2096), (aux_sym_in_out_decls_token1, 318),
     (aux_sym_var_decls_token1, 2098), (aux_sym_temp_var_decls_token1, 322),
     (aux_sym_external_var_decls_token1, 324), (aux_sym_global_var_decls_token1, 326),
     (aux_sym_method_decl_token1, 330), (aux_sym_method_decl_token3, 2630),
     (aux_sym_prog_access_decls_token1, 332), (aux_sym_config_init_token1, 336),
     (aux_sym__stmt_token1, 340), (aux_sym__stmt_token2, 340), (aux_sym__stmt_token3, 340),
     (aux_sym_if_stmt_token1, 342), (aux_sym_case_stmt_token1, 344), (aux_sym_for_stmt_token1, 346),
     (aux_sym_while_stmt_token1, 348), (aux_sym_repeat_stmt_token1, 350),
     (aux_sym_raise_stmt_token1, 352), (aux_sym_try_stmt_token1, 354),
     (aux_sym_try_stmt_token2, 356), (aux_sym_catch_clause_token1, 356),
     (aux_sym_finally_clause_token1, 356), (sym_ld_rung, 2102), (sym_fbd_network, 2104),
     (sym_c_style_comment, 3), (sym_pascal_style_comment, 3), (sym_pragma, 3)]"

lemma ts_parse_row_1085_scan: "row_scan tokens_63_2 0 ts_parse_row_1085 = Some (Suc (Suc (Suc (Suc 0))))"
  unfolding ts_parse_row_1085_def by simp

text \<open>Lines 176190 to 176293.\<close>

definition ts_parse_row_1086 :: parse_row where
  "ts_parse_row_1086 =
    [(sym_ERR_assign_func_call, 7530), (sym_ERR_unexpected_this_in_path, 2372),
     (sym_ERR_unexpected_super_in_path, 2372), (sym_ERR_var_access_not_allowed, 3196),
     (sym_ERR_var_config_not_allowed, 3196), (sym_ERR_var_external_not_allowed, 3196),
     (sym_ERR_var_global_not_allowed, 3196), (sym_ERR_method_decl_in_body, 3150),
     (sym_extern_pragma, 7490), (sym_wasm_pragma, 3150), (sym_warn_pragma, 7490),
     (sym_allow_pragma, 3140), (sym_test_pragma, 7490), (sym_once_pragma, 7490),
     (sym_must_call_pragma, 7490), (sym_export_pragma, 7490), (sym_pou_pragma, 7194),
     (sym_direct_variable, 7675), (sym_deref_expression, 2373), (sym_variable, 7599),
     (sym_var_access, 2373), (sym_input_decls, 3196), (sym_output_decls, 3196),
     (sym_in_out_decls, 3196), (sym_var_decls, 3196), (sym_temp_var_decls, 3196),
     (sym_external_var_decls, 3197), (sym_global_var_decls, 2947), (sym_func_body, 10421),
     (sym_method_decl, 3159), (sym__method_decl_variables, 2368), (sym_prog_access_decls, 3043),
     (sym_config_init, 3047), (sym_variable_access, 7530), (sym_func_call, 2961),
     (sym_stmt_list, 8165), (sym__stmt, 2024), (sym_assign, 3150), (sym_if_stmt, 3150),
     (sym_case_stmt, 3150), (sym_for_stmt, 3150), (sym_while_stmt, 3150), (sym_repeat_stmt, 3150),
     (sym_raise_stmt, 3150), (sym_try_stmt, 3150), (sym_ERR_clause_outside_try, 3150),
     (sym_begin_path_expression, 2943), (sym_invocation, 2934), (sym_any_invocation, 2935),
     (sym_this_invocation, 2641), (sym_super_invocation, 2641), (sym_super_body_invocation, 2935),
     (sym_path_expression, 2627), (sym_field_expression, 2373), (sym_index_expression, 2373),
     (sym_ladder_diagram, 8165), (sym_fb_diagram, 8165), (aux_sym_func_decl_repeat1, 7194),
     (aux_sym_method_decl_repeat1, 2368), (aux_sym_stmt_list_repeat1, 2024),
     (aux_sym_ladder_diagram_repeat1, 7628), (aux_sym_fb_diagram_repeat1, 7633),
     (sym_identifier, 298), (aux_sym_ERR_unexpected_this_in_path_token1, 304),
     (aux_sym_ERR_unexpected_super_in_path_token1, 306), (sym_line_comment, 3),
     (anon_sym_LBRACE, 308), (aux_sym_test_pragma_token1, 9), (aux_sym_once_pragma_token1, 11),
     (aux_sym_must_call_pragma_token1, 13), (aux_sym_export_pragma_token1, 15),
     (anon_sym_SEMI, 310), (anon_sym_PERCENT, 312), (aux_sym_input_decls_token1, 2094),
     (aux_sym_output_decls_token1, 2096), (aux_sym_in_out_decls_token1, 318),
     (aux_sym_var_decls_token1, 2098), (aux_sym_temp_var_decls_token1, 322),
     (aux_sym_external_var_decls_token1, 324), (aux_sym_global_var_decls_token1, 326),
     (aux_sym_method_decl_token1, 330), (aux_sym_method_decl_token3, 2632),
     (aux_sym_prog_access_decls_token1, 332), (aux_sym_config_init_token1, 336),
     (aux_sym__stmt_token1, 340), (aux_sym__stmt_token2, 340), (aux_sym__stmt_token3, 340),
     (aux_sym_if_stmt_token1, 342), (aux_sym_case_stmt_token1, 344), (aux_sym_for_stmt_token1, 346),
     (aux_sym_while_stmt_token1, 348), (aux_sym_repeat_stmt_token1, 350),
     (aux_sym_raise_stmt_token1, 352), (aux_sym_try_stmt_token1, 354),
     (aux_sym_try_stmt_token2, 356), (aux_sym_catch_clause_token1, 356),
     (aux_sym_finally_clause_token1, 356), (sym_ld_rung, 2102), (sym_fbd_network, 2104),
     (sym_c_style_comment, 3), (sym_pascal_style_comment, 3), (sym_pragma, 3)]"

lemma ts_parse_row_1086_scan: "row_scan tokens_63_2 0 ts_parse_row_1086 = Some (Suc (Suc (Suc (Suc 0))))"
  unfolding ts_parse_row_1086_def by simp

text \<open>Lines 176294 to 176397.\<close>

definition ts_parse_row_1087 :: parse_row where
  "ts_parse_row_1087 =
    [(sym_ERR_assign_func_call, 7530), (sym_ERR_unexpected_this_in_path, 2372),
     (sym_ERR_unexpected_super_in_path, 2372), (sym_ERR_var_access_not_allowed, 3196),
     (sym_ERR_var_config_not_allowed, 3196), (sym_ERR_var_external_not_allowed, 3196),
     (sym_ERR_var_global_not_allowed, 3196), (sym_ERR_method_decl_in_body, 3150),
     (sym_extern_pragma, 7490), (sym_wasm_pragma, 3150), (sym_warn_pragma, 7490),
     (sym_allow_pragma, 3140), (sym_test_pragma, 7490), (sym_once_pragma, 7490),
     (sym_must_call_pragma, 7490), (sym_export_pragma, 7490), (sym_pou_pragma, 7194),
     (sym_direct_variable, 7675), (sym_deref_expression, 2373), (sym_variable, 7599),
     (sym_var_access, 2373), (sym_input_decls, 3196), (sym_output_decls, 3196),
     (sym_in_out_decls, 3196), (sym_var_decls, 3196), (sym_temp_var_decls, 3196),
     (sym_external_var_decls, 3197), (sym_global_var_decls, 2947), (sym_func_body, 10422),
     (sym_method_decl, 3159), (sym__method_decl_variables, 1093), (sym_prog_access_decls, 3043),
     (sym_config_init, 3047), (sym_variable_access, 7530), (sym_func_call, 2961),
     (sym_stmt_list, 8165), (sym__stmt, 2024), (sym_assign, 3150), (sym_if_stmt, 3150),
     (sym_case_stmt, 3150), (sym_for_stmt, 3150), (sym_while_stmt, 3150), (sym_repeat_stmt, 3150),
     (sym_raise_stmt, 3150), (sym_try_stmt, 3150), (sym_ERR_clause_outside_try, 3150),
     (sym_begin_path_expression, 2943), (sym_invocation, 2934), (sym_any_invocation, 2935),
     (sym_this_invocation, 2641), (sym_super_invocation, 2641), (sym_super_body_invocation, 2935),
     (sym_path_expression, 2627), (sym_field_expression, 2373), (sym_index_expression, 2373),
     (sym_ladder_diagram, 8165), (sym_fb_diagram, 8165), (aux_sym_func_decl_repeat1, 7194),
     (aux_sym_method_decl_repeat1, 1093), (aux_sym_stmt_list_repeat1, 2024),
     (aux_sym_ladder_diagram_repeat1, 7628), (aux_sym_fb_diagram_repeat1, 7633),
     (sym_identifier, 298), (aux_sym_ERR_unexpected_this_in_path_token1, 304),
     (aux_sym_ERR_unexpected_super_in_path_token1, 306), (sym_line_comment, 3),
     (anon_sym_LBRACE, 308), (aux_sym_test_pragma_token1, 9), (aux_sym_once_pragma_token1, 11),
     (aux_sym_must_call_pragma_token1, 13), (aux_sym_export_pragma_token1, 15),
     (anon_sym_SEMI, 310), (anon_sym_PERCENT, 312), (aux_sym_input_decls_token1, 2094),
     (aux_sym_output_decls_token1, 2096), (aux_sym_in_out_decls_token1, 318),
     (aux_sym_var_decls_token1, 2098), (aux_sym_temp_var_decls_token1, 322),
     (aux_sym_external_var_decls_token1, 324), (aux_sym_global_var_decls_token1, 326),
     (aux_sym_method_decl_token1, 330), (aux_sym_method_decl_token3, 2634),
     (aux_sym_prog_access_decls_token1, 332), (aux_sym_config_init_token1, 336),
     (aux_sym__stmt_token1, 340), (aux_sym__stmt_token2, 340), (aux_sym__stmt_token3, 340),
     (aux_sym_if_stmt_token1, 342), (aux_sym_case_stmt_token1, 344), (aux_sym_for_stmt_token1, 346),
     (aux_sym_while_stmt_token1, 348), (aux_sym_repeat_stmt_token1, 350),
     (aux_sym_raise_stmt_token1, 352), (aux_sym_try_stmt_token1, 354),
     (aux_sym_try_stmt_token2, 356), (aux_sym_catch_clause_token1, 356),
     (aux_sym_finally_clause_token1, 356), (sym_ld_rung, 2102), (sym_fbd_network, 2104),
     (sym_c_style_comment, 3), (sym_pascal_style_comment, 3), (sym_pragma, 3)]"

lemma ts_parse_row_1087_scan: "row_scan tokens_63_2 0 ts_parse_row_1087 = Some (Suc (Suc (Suc (Suc 0))))"
  unfolding ts_parse_row_1087_def by simp

text \<open>Lines 176398 to 176501.\<close>

definition ts_parse_row_1088 :: parse_row where
  "ts_parse_row_1088 =
    [(sym_ERR_assign_func_call, 7530), (sym_ERR_unexpected_this_in_path, 2372),
     (sym_ERR_unexpected_super_in_path, 2372), (sym_ERR_var_access_not_allowed, 3196),
     (sym_ERR_var_config_not_allowed, 3196), (sym_ERR_var_external_not_allowed, 3196),
     (sym_ERR_var_global_not_allowed, 3196), (sym_ERR_method_decl_in_body, 3150),
     (sym_extern_pragma, 7490), (sym_wasm_pragma, 3150), (sym_warn_pragma, 7490),
     (sym_allow_pragma, 3140), (sym_test_pragma, 7490), (sym_once_pragma, 7490),
     (sym_must_call_pragma, 7490), (sym_export_pragma, 7490), (sym_pou_pragma, 7194),
     (sym_direct_variable, 7675), (sym_deref_expression, 2373), (sym_variable, 7599),
     (sym_var_access, 2373), (sym_input_decls, 3196), (sym_output_decls, 3196),
     (sym_in_out_decls, 3196), (sym_var_decls, 3196), (sym_temp_var_decls, 3196),
     (sym_external_var_decls, 3197), (sym_global_var_decls, 2947), (sym_func_body, 10424),
     (sym_method_decl, 3159), (sym__method_decl_variables, 1094), (sym_prog_access_decls, 3043),
     (sym_config_init, 3047), (sym_variable_access, 7530), (sym_func_call, 2961),
     (sym_stmt_list, 8165), (sym__stmt, 2024), (sym_assign, 3150), (sym_if_stmt, 3150),
     (sym_case_stmt, 3150), (sym_for_stmt, 3150), (sym_while_stmt, 3150), (sym_repeat_stmt, 3150),
     (sym_raise_stmt, 3150), (sym_try_stmt, 3150), (sym_ERR_clause_outside_try, 3150),
     (sym_begin_path_expression, 2943), (sym_invocation, 2934), (sym_any_invocation, 2935),
     (sym_this_invocation, 2641), (sym_super_invocation, 2641), (sym_super_body_invocation, 2935),
     (sym_path_expression, 2627), (sym_field_expression, 2373), (sym_index_expression, 2373),
     (sym_ladder_diagram, 8165), (sym_fb_diagram, 8165), (aux_sym_func_decl_repeat1, 7194),
     (aux_sym_method_decl_repeat1, 1094), (aux_sym_stmt_list_repeat1, 2024),
     (aux_sym_ladder_diagram_repeat1, 7628), (aux_sym_fb_diagram_repeat1, 7633),
     (sym_identifier, 298), (aux_sym_ERR_unexpected_this_in_path_token1, 304),
     (aux_sym_ERR_unexpected_super_in_path_token1, 306), (sym_line_comment, 3),
     (anon_sym_LBRACE, 308), (aux_sym_test_pragma_token1, 9), (aux_sym_once_pragma_token1, 11),
     (aux_sym_must_call_pragma_token1, 13), (aux_sym_export_pragma_token1, 15),
     (anon_sym_SEMI, 310), (anon_sym_PERCENT, 312), (aux_sym_input_decls_token1, 2094),
     (aux_sym_output_decls_token1, 2096), (aux_sym_in_out_decls_token1, 318),
     (aux_sym_var_decls_token1, 2098), (aux_sym_temp_var_decls_token1, 322),
     (aux_sym_external_var_decls_token1, 324), (aux_sym_global_var_decls_token1, 326),
     (aux_sym_method_decl_token1, 330), (aux_sym_method_decl_token3, 2636),
     (aux_sym_prog_access_decls_token1, 332), (aux_sym_config_init_token1, 336),
     (aux_sym__stmt_token1, 340), (aux_sym__stmt_token2, 340), (aux_sym__stmt_token3, 340),
     (aux_sym_if_stmt_token1, 342), (aux_sym_case_stmt_token1, 344), (aux_sym_for_stmt_token1, 346),
     (aux_sym_while_stmt_token1, 348), (aux_sym_repeat_stmt_token1, 350),
     (aux_sym_raise_stmt_token1, 352), (aux_sym_try_stmt_token1, 354),
     (aux_sym_try_stmt_token2, 356), (aux_sym_catch_clause_token1, 356),
     (aux_sym_finally_clause_token1, 356), (sym_ld_rung, 2102), (sym_fbd_network, 2104),
     (sym_c_style_comment, 3), (sym_pascal_style_comment, 3), (sym_pragma, 3)]"

lemma ts_parse_row_1088_scan: "row_scan tokens_63_2 0 ts_parse_row_1088 = Some (Suc (Suc (Suc (Suc 0))))"
  unfolding ts_parse_row_1088_def by simp

text \<open>Lines 176502 to 176605.\<close>

definition ts_parse_row_1089 :: parse_row where
  "ts_parse_row_1089 =
    [(sym_ERR_assign_func_call, 7530), (sym_ERR_unexpected_this_in_path, 2372),
     (sym_ERR_unexpected_super_in_path, 2372), (sym_ERR_var_access_not_allowed, 3196),
     (sym_ERR_var_config_not_allowed, 3196), (sym_ERR_var_external_not_allowed, 3196),
     (sym_ERR_var_global_not_allowed, 3196), (sym_ERR_method_decl_in_body, 3150),
     (sym_extern_pragma, 7490), (sym_wasm_pragma, 3150), (sym_warn_pragma, 7490),
     (sym_allow_pragma, 3140), (sym_test_pragma, 7490), (sym_once_pragma, 7490),
     (sym_must_call_pragma, 7490), (sym_export_pragma, 7490), (sym_pou_pragma, 7194),
     (sym_direct_variable, 7675), (sym_deref_expression, 2373), (sym_variable, 7599),
     (sym_var_access, 2373), (sym_input_decls, 3196), (sym_output_decls, 3196),
     (sym_in_out_decls, 3196), (sym_var_decls, 3196), (sym_temp_var_decls, 3196),
     (sym_external_var_decls, 3197), (sym_global_var_decls, 2947), (sym_func_body, 10426),
     (sym_method_decl, 3159), (sym__method_decl_variables, 2368), (sym_prog_access_decls, 3043),
     (sym_config_init, 3047), (sym_variable_access, 7530), (sym_func_call, 2961),
     (sym_stmt_list, 8165), (sym__stmt, 2024), (sym_assign, 3150), (sym_if_stmt, 3150),
     (sym_case_stmt, 3150), (sym_for_stmt, 3150), (sym_while_stmt, 3150), (sym_repeat_stmt, 3150),
     (sym_raise_stmt, 3150), (sym_try_stmt, 3150), (sym_ERR_clause_outside_try, 3150),
     (sym_begin_path_expression, 2943), (sym_invocation, 2934), (sym_any_invocation, 2935),
     (sym_this_invocation, 2641), (sym_super_invocation, 2641), (sym_super_body_invocation, 2935),
     (sym_path_expression, 2627), (sym_field_expression, 2373), (sym_index_expression, 2373),
     (sym_ladder_diagram, 8165), (sym_fb_diagram, 8165), (aux_sym_func_decl_repeat1, 7194),
     (aux_sym_method_decl_repeat1, 2368), (aux_sym_stmt_list_repeat1, 2024),
     (aux_sym_ladder_diagram_repeat1, 7628), (aux_sym_fb_diagram_repeat1, 7633),
     (sym_identifier, 298), (aux_sym_ERR_unexpected_this_in_path_token1, 304),
     (aux_sym_ERR_unexpected_super_in_path_token1, 306), (sym_line_comment, 3),
     (anon_sym_LBRACE, 308), (aux_sym_test_pragma_token1, 9), (aux_sym_once_pragma_token1, 11),
     (aux_sym_must_call_pragma_token1, 13), (aux_sym_export_pragma_token1, 15),
     (anon_sym_SEMI, 310), (anon_sym_PERCENT, 312), (aux_sym_input_decls_token1, 2094),
     (aux_sym_output_decls_token1, 2096), (aux_sym_in_out_decls_token1, 318),
     (aux_sym_var_decls_token1, 2098), (aux_sym_temp_var_decls_token1, 322),
     (aux_sym_external_var_decls_token1, 324), (aux_sym_global_var_decls_token1, 326),
     (aux_sym_method_decl_token1, 330), (aux_sym_method_decl_token3, 2638),
     (aux_sym_prog_access_decls_token1, 332), (aux_sym_config_init_token1, 336),
     (aux_sym__stmt_token1, 340), (aux_sym__stmt_token2, 340), (aux_sym__stmt_token3, 340),
     (aux_sym_if_stmt_token1, 342), (aux_sym_case_stmt_token1, 344), (aux_sym_for_stmt_token1, 346),
     (aux_sym_while_stmt_token1, 348), (aux_sym_repeat_stmt_token1, 350),
     (aux_sym_raise_stmt_token1, 352), (aux_sym_try_stmt_token1, 354),
     (aux_sym_try_stmt_token2, 356), (aux_sym_catch_clause_token1, 356),
     (aux_sym_finally_clause_token1, 356), (sym_ld_rung, 2102), (sym_fbd_network, 2104),
     (sym_c_style_comment, 3), (sym_pascal_style_comment, 3), (sym_pragma, 3)]"

lemma ts_parse_row_1089_scan: "row_scan tokens_63_2 0 ts_parse_row_1089 = Some (Suc (Suc (Suc (Suc 0))))"
  unfolding ts_parse_row_1089_def by simp

text \<open>Lines 176606 to 176709.\<close>

definition ts_parse_row_1090 :: parse_row where
  "ts_parse_row_1090 =
    [(sym_ERR_assign_func_call, 7530), (sym_ERR_unexpected_this_in_path, 2372),
     (sym_ERR_unexpected_super_in_path, 2372), (sym_ERR_var_access_not_allowed, 3196),
     (sym_ERR_var_config_not_allowed, 3196), (sym_ERR_var_external_not_allowed, 3196),
     (sym_ERR_var_global_not_allowed, 3196), (sym_ERR_method_decl_in_body, 3150),
     (sym_extern_pragma, 7490), (sym_wasm_pragma, 3150), (sym_warn_pragma, 7490),
     (sym_allow_pragma, 3140), (sym_test_pragma, 7490), (sym_once_pragma, 7490),
     (sym_must_call_pragma, 7490), (sym_export_pragma, 7490), (sym_pou_pragma, 7194),
     (sym_direct_variable, 7675), (sym_deref_expression, 2373), (sym_variable, 7599),
     (sym_var_access, 2373), (sym_input_decls, 3196), (sym_output_decls, 3196),
     (sym_in_out_decls, 3196), (sym_var_decls, 3196), (sym_temp_var_decls, 3196),
     (sym_external_var_decls, 3197), (sym_global_var_decls, 2947), (sym_func_body, 10427),
     (sym_method_decl, 3159), (sym__method_decl_variables, 2368), (sym_prog_access_decls, 3043),
     (sym_config_init, 3047), (sym_variable_access, 7530), (sym_func_call, 2961),
     (sym_stmt_list, 8165), (sym__stmt, 2024), (sym_assign, 3150), (sym_if_stmt, 3150),
     (sym_case_stmt, 3150), (sym_for_stmt, 3150), (sym_while_stmt, 3150), (sym_repeat_stmt, 3150),
     (sym_raise_stmt, 3150), (sym_try_stmt, 3150), (sym_ERR_clause_outside_try, 3150),
     (sym_begin_path_expression, 2943), (sym_invocation, 2934), (sym_any_invocation, 2935),
     (sym_this_invocation, 2641), (sym_super_invocation, 2641), (sym_super_body_invocation, 2935),
     (sym_path_expression, 2627), (sym_field_expression, 2373), (sym_index_expression, 2373),
     (sym_ladder_diagram, 8165), (sym_fb_diagram, 8165), (aux_sym_func_decl_repeat1, 7194),
     (aux_sym_method_decl_repeat1, 2368), (aux_sym_stmt_list_repeat1, 2024),
     (aux_sym_ladder_diagram_repeat1, 7628), (aux_sym_fb_diagram_repeat1, 7633),
     (sym_identifier, 298), (aux_sym_ERR_unexpected_this_in_path_token1, 304),
     (aux_sym_ERR_unexpected_super_in_path_token1, 306), (sym_line_comment, 3),
     (anon_sym_LBRACE, 308), (aux_sym_test_pragma_token1, 9), (aux_sym_once_pragma_token1, 11),
     (aux_sym_must_call_pragma_token1, 13), (aux_sym_export_pragma_token1, 15),
     (anon_sym_SEMI, 310), (anon_sym_PERCENT, 312), (aux_sym_input_decls_token1, 2094),
     (aux_sym_output_decls_token1, 2096), (aux_sym_in_out_decls_token1, 318),
     (aux_sym_var_decls_token1, 2098), (aux_sym_temp_var_decls_token1, 322),
     (aux_sym_external_var_decls_token1, 324), (aux_sym_global_var_decls_token1, 326),
     (aux_sym_method_decl_token1, 330), (aux_sym_method_decl_token3, 2640),
     (aux_sym_prog_access_decls_token1, 332), (aux_sym_config_init_token1, 336),
     (aux_sym__stmt_token1, 340), (aux_sym__stmt_token2, 340), (aux_sym__stmt_token3, 340),
     (aux_sym_if_stmt_token1, 342), (aux_sym_case_stmt_token1, 344), (aux_sym_for_stmt_token1, 346),
     (aux_sym_while_stmt_token1, 348), (aux_sym_repeat_stmt_token1, 350),
     (aux_sym_raise_stmt_token1, 352), (aux_sym_try_stmt_token1, 354),
     (aux_sym_try_stmt_token2, 356), (aux_sym_catch_clause_token1, 356),
     (aux_sym_finally_clause_token1, 356), (sym_ld_rung, 2102), (sym_fbd_network, 2104),
     (sym_c_style_comment, 3), (sym_pascal_style_comment, 3), (sym_pragma, 3)]"

lemma ts_parse_row_1090_scan: "row_scan tokens_63_2 0 ts_parse_row_1090 = Some (Suc (Suc (Suc (Suc 0))))"
  unfolding ts_parse_row_1090_def by simp

text \<open>Lines 176710 to 176813.\<close>

definition ts_parse_row_1091 :: parse_row where
  "ts_parse_row_1091 =
    [(sym_ERR_assign_func_call, 7530), (sym_ERR_unexpected_this_in_path, 2372),
     (sym_ERR_unexpected_super_in_path, 2372), (sym_ERR_var_access_not_allowed, 3196),
     (sym_ERR_var_config_not_allowed, 3196), (sym_ERR_var_external_not_allowed, 3196),
     (sym_ERR_var_global_not_allowed, 3196), (sym_ERR_method_decl_in_body, 3150),
     (sym_extern_pragma, 7490), (sym_wasm_pragma, 3150), (sym_warn_pragma, 7490),
     (sym_allow_pragma, 3140), (sym_test_pragma, 7490), (sym_once_pragma, 7490),
     (sym_must_call_pragma, 7490), (sym_export_pragma, 7490), (sym_pou_pragma, 7194),
     (sym_direct_variable, 7675), (sym_deref_expression, 2373), (sym_variable, 7599),
     (sym_var_access, 2373), (sym_input_decls, 3196), (sym_output_decls, 3196),
     (sym_in_out_decls, 3196), (sym_var_decls, 3196), (sym_temp_var_decls, 3196),
     (sym_external_var_decls, 3197), (sym_global_var_decls, 2947), (sym_func_body, 10428),
     (sym_method_decl, 3159), (sym__method_decl_variables, 2368), (sym_prog_access_decls, 3043),
     (sym_config_init, 3047), (sym_variable_access, 7530), (sym_func_call, 2961),
     (sym_stmt_list, 8165), (sym__stmt, 2024), (sym_assign, 3150), (sym_if_stmt, 3150),
     (sym_case_stmt, 3150), (sym_for_stmt, 3150), (sym_while_stmt, 3150), (sym_repeat_stmt, 3150),
     (sym_raise_stmt, 3150), (sym_try_stmt, 3150), (sym_ERR_clause_outside_try, 3150),
     (sym_begin_path_expression, 2943), (sym_invocation, 2934), (sym_any_invocation, 2935),
     (sym_this_invocation, 2641), (sym_super_invocation, 2641), (sym_super_body_invocation, 2935),
     (sym_path_expression, 2627), (sym_field_expression, 2373), (sym_index_expression, 2373),
     (sym_ladder_diagram, 8165), (sym_fb_diagram, 8165), (aux_sym_func_decl_repeat1, 7194),
     (aux_sym_method_decl_repeat1, 2368), (aux_sym_stmt_list_repeat1, 2024),
     (aux_sym_ladder_diagram_repeat1, 7628), (aux_sym_fb_diagram_repeat1, 7633),
     (sym_identifier, 298), (aux_sym_ERR_unexpected_this_in_path_token1, 304),
     (aux_sym_ERR_unexpected_super_in_path_token1, 306), (sym_line_comment, 3),
     (anon_sym_LBRACE, 308), (aux_sym_test_pragma_token1, 9), (aux_sym_once_pragma_token1, 11),
     (aux_sym_must_call_pragma_token1, 13), (aux_sym_export_pragma_token1, 15),
     (anon_sym_SEMI, 310), (anon_sym_PERCENT, 312), (aux_sym_input_decls_token1, 2094),
     (aux_sym_output_decls_token1, 2096), (aux_sym_in_out_decls_token1, 318),
     (aux_sym_var_decls_token1, 2098), (aux_sym_temp_var_decls_token1, 322),
     (aux_sym_external_var_decls_token1, 324), (aux_sym_global_var_decls_token1, 326),
     (aux_sym_method_decl_token1, 330), (aux_sym_method_decl_token3, 2642),
     (aux_sym_prog_access_decls_token1, 332), (aux_sym_config_init_token1, 336),
     (aux_sym__stmt_token1, 340), (aux_sym__stmt_token2, 340), (aux_sym__stmt_token3, 340),
     (aux_sym_if_stmt_token1, 342), (aux_sym_case_stmt_token1, 344), (aux_sym_for_stmt_token1, 346),
     (aux_sym_while_stmt_token1, 348), (aux_sym_repeat_stmt_token1, 350),
     (aux_sym_raise_stmt_token1, 352), (aux_sym_try_stmt_token1, 354),
     (aux_sym_try_stmt_token2, 356), (aux_sym_catch_clause_token1, 356),
     (aux_sym_finally_clause_token1, 356), (sym_ld_rung, 2102), (sym_fbd_network, 2104),
     (sym_c_style_comment, 3), (sym_pascal_style_comment, 3), (sym_pragma, 3)]"

lemma ts_parse_row_1091_scan: "row_scan tokens_63_2 0 ts_parse_row_1091 = Some (Suc (Suc (Suc (Suc 0))))"
  unfolding ts_parse_row_1091_def by simp

text \<open>Lines 176814 to 176917.\<close>

definition ts_parse_row_1092 :: parse_row where
  "ts_parse_row_1092 =
    [(sym_ERR_assign_func_call, 7530), (sym_ERR_unexpected_this_in_path, 2372),
     (sym_ERR_unexpected_super_in_path, 2372), (sym_ERR_var_access_not_allowed, 3196),
     (sym_ERR_var_config_not_allowed, 3196), (sym_ERR_var_external_not_allowed, 3196),
     (sym_ERR_var_global_not_allowed, 3196), (sym_ERR_method_decl_in_body, 3150),
     (sym_extern_pragma, 7490), (sym_wasm_pragma, 3150), (sym_warn_pragma, 7490),
     (sym_allow_pragma, 3140), (sym_test_pragma, 7490), (sym_once_pragma, 7490),
     (sym_must_call_pragma, 7490), (sym_export_pragma, 7490), (sym_pou_pragma, 7194),
     (sym_direct_variable, 7675), (sym_deref_expression, 2373), (sym_variable, 7599),
     (sym_var_access, 2373), (sym_input_decls, 3196), (sym_output_decls, 3196),
     (sym_in_out_decls, 3196), (sym_var_decls, 3196), (sym_temp_var_decls, 3196),
     (sym_external_var_decls, 3197), (sym_global_var_decls, 2947), (sym_func_body, 10429),
     (sym_method_decl, 3159), (sym__method_decl_variables, 1095), (sym_prog_access_decls, 3043),
     (sym_config_init, 3047), (sym_variable_access, 7530), (sym_func_call, 2961),
     (sym_stmt_list, 8165), (sym__stmt, 2024), (sym_assign, 3150), (sym_if_stmt, 3150),
     (sym_case_stmt, 3150), (sym_for_stmt, 3150), (sym_while_stmt, 3150), (sym_repeat_stmt, 3150),
     (sym_raise_stmt, 3150), (sym_try_stmt, 3150), (sym_ERR_clause_outside_try, 3150),
     (sym_begin_path_expression, 2943), (sym_invocation, 2934), (sym_any_invocation, 2935),
     (sym_this_invocation, 2641), (sym_super_invocation, 2641), (sym_super_body_invocation, 2935),
     (sym_path_expression, 2627), (sym_field_expression, 2373), (sym_index_expression, 2373),
     (sym_ladder_diagram, 8165), (sym_fb_diagram, 8165), (aux_sym_func_decl_repeat1, 7194),
     (aux_sym_method_decl_repeat1, 1095), (aux_sym_stmt_list_repeat1, 2024),
     (aux_sym_ladder_diagram_repeat1, 7628), (aux_sym_fb_diagram_repeat1, 7633),
     (sym_identifier, 298), (aux_sym_ERR_unexpected_this_in_path_token1, 304),
     (aux_sym_ERR_unexpected_super_in_path_token1, 306), (sym_line_comment, 3),
     (anon_sym_LBRACE, 308), (aux_sym_test_pragma_token1, 9), (aux_sym_once_pragma_token1, 11),
     (aux_sym_must_call_pragma_token1, 13), (aux_sym_export_pragma_token1, 15),
     (anon_sym_SEMI, 310), (anon_sym_PERCENT, 312), (aux_sym_input_decls_token1, 2094),
     (aux_sym_output_decls_token1, 2096), (aux_sym_in_out_decls_token1, 318),
     (aux_sym_var_decls_token1, 2098), (aux_sym_temp_var_decls_token1, 322),
     (aux_sym_external_var_decls_token1, 324), (aux_sym_global_var_decls_token1, 326),
     (aux_sym_method_decl_token1, 330), (aux_sym_method_decl_token3, 2644),
     (aux_sym_prog_access_decls_token1, 332), (aux_sym_config_init_token1, 336),
     (aux_sym__stmt_token1, 340), (aux_sym__stmt_token2, 340), (aux_sym__stmt_token3, 340),
     (aux_sym_if_stmt_token1, 342), (aux_sym_case_stmt_token1, 344), (aux_sym_for_stmt_token1, 346),
     (aux_sym_while_stmt_token1, 348), (aux_sym_repeat_stmt_token1, 350),
     (aux_sym_raise_stmt_token1, 352), (aux_sym_try_stmt_token1, 354),
     (aux_sym_try_stmt_token2, 356), (aux_sym_catch_clause_token1, 356),
     (aux_sym_finally_clause_token1, 356), (sym_ld_rung, 2102), (sym_fbd_network, 2104),
     (sym_c_style_comment, 3), (sym_pascal_style_comment, 3), (sym_pragma, 3)]"

lemma ts_parse_row_1092_scan: "row_scan tokens_63_2 0 ts_parse_row_1092 = Some (Suc (Suc (Suc (Suc 0))))"
  unfolding ts_parse_row_1092_def by simp

text \<open>Lines 176918 to 177021.\<close>

definition ts_parse_row_1093 :: parse_row where
  "ts_parse_row_1093 =
    [(sym_ERR_assign_func_call, 7530), (sym_ERR_unexpected_this_in_path, 2372),
     (sym_ERR_unexpected_super_in_path, 2372), (sym_ERR_var_access_not_allowed, 3196),
     (sym_ERR_var_config_not_allowed, 3196), (sym_ERR_var_external_not_allowed, 3196),
     (sym_ERR_var_global_not_allowed, 3196), (sym_ERR_method_decl_in_body, 3150),
     (sym_extern_pragma, 7490), (sym_wasm_pragma, 3150), (sym_warn_pragma, 7490),
     (sym_allow_pragma, 3140), (sym_test_pragma, 7490), (sym_once_pragma, 7490),
     (sym_must_call_pragma, 7490), (sym_export_pragma, 7490), (sym_pou_pragma, 7194),
     (sym_direct_variable, 7675), (sym_deref_expression, 2373), (sym_variable, 7599),
     (sym_var_access, 2373), (sym_input_decls, 3196), (sym_output_decls, 3196),
     (sym_in_out_decls, 3196), (sym_var_decls, 3196), (sym_temp_var_decls, 3196),
     (sym_external_var_decls, 3197), (sym_global_var_decls, 2947), (sym_func_body, 10431),
     (sym_method_decl, 3159), (sym__method_decl_variables, 2368), (sym_prog_access_decls, 3043),
     (sym_config_init, 3047), (sym_variable_access, 7530), (sym_func_call, 2961),
     (sym_stmt_list, 8165), (sym__stmt, 2024), (sym_assign, 3150), (sym_if_stmt, 3150),
     (sym_case_stmt, 3150), (sym_for_stmt, 3150), (sym_while_stmt, 3150), (sym_repeat_stmt, 3150),
     (sym_raise_stmt, 3150), (sym_try_stmt, 3150), (sym_ERR_clause_outside_try, 3150),
     (sym_begin_path_expression, 2943), (sym_invocation, 2934), (sym_any_invocation, 2935),
     (sym_this_invocation, 2641), (sym_super_invocation, 2641), (sym_super_body_invocation, 2935),
     (sym_path_expression, 2627), (sym_field_expression, 2373), (sym_index_expression, 2373),
     (sym_ladder_diagram, 8165), (sym_fb_diagram, 8165), (aux_sym_func_decl_repeat1, 7194),
     (aux_sym_method_decl_repeat1, 2368), (aux_sym_stmt_list_repeat1, 2024),
     (aux_sym_ladder_diagram_repeat1, 7628), (aux_sym_fb_diagram_repeat1, 7633),
     (sym_identifier, 298), (aux_sym_ERR_unexpected_this_in_path_token1, 304),
     (aux_sym_ERR_unexpected_super_in_path_token1, 306), (sym_line_comment, 3),
     (anon_sym_LBRACE, 308), (aux_sym_test_pragma_token1, 9), (aux_sym_once_pragma_token1, 11),
     (aux_sym_must_call_pragma_token1, 13), (aux_sym_export_pragma_token1, 15),
     (anon_sym_SEMI, 310), (anon_sym_PERCENT, 312), (aux_sym_input_decls_token1, 2094),
     (aux_sym_output_decls_token1, 2096), (aux_sym_in_out_decls_token1, 318),
     (aux_sym_var_decls_token1, 2098), (aux_sym_temp_var_decls_token1, 322),
     (aux_sym_external_var_decls_token1, 324), (aux_sym_global_var_decls_token1, 326),
     (aux_sym_method_decl_token1, 330), (aux_sym_method_decl_token3, 2646),
     (aux_sym_prog_access_decls_token1, 332), (aux_sym_config_init_token1, 336),
     (aux_sym__stmt_token1, 340), (aux_sym__stmt_token2, 340), (aux_sym__stmt_token3, 340),
     (aux_sym_if_stmt_token1, 342), (aux_sym_case_stmt_token1, 344), (aux_sym_for_stmt_token1, 346),
     (aux_sym_while_stmt_token1, 348), (aux_sym_repeat_stmt_token1, 350),
     (aux_sym_raise_stmt_token1, 352), (aux_sym_try_stmt_token1, 354),
     (aux_sym_try_stmt_token2, 356), (aux_sym_catch_clause_token1, 356),
     (aux_sym_finally_clause_token1, 356), (sym_ld_rung, 2102), (sym_fbd_network, 2104),
     (sym_c_style_comment, 3), (sym_pascal_style_comment, 3), (sym_pragma, 3)]"

lemma ts_parse_row_1093_scan: "row_scan tokens_63_2 0 ts_parse_row_1093 = Some (Suc (Suc (Suc (Suc 0))))"
  unfolding ts_parse_row_1093_def by simp

text \<open>Lines 177022 to 177125.\<close>

definition ts_parse_row_1094 :: parse_row where
  "ts_parse_row_1094 =
    [(sym_ERR_assign_func_call, 7530), (sym_ERR_unexpected_this_in_path, 2372),
     (sym_ERR_unexpected_super_in_path, 2372), (sym_ERR_var_access_not_allowed, 3196),
     (sym_ERR_var_config_not_allowed, 3196), (sym_ERR_var_external_not_allowed, 3196),
     (sym_ERR_var_global_not_allowed, 3196), (sym_ERR_method_decl_in_body, 3150),
     (sym_extern_pragma, 7490), (sym_wasm_pragma, 3150), (sym_warn_pragma, 7490),
     (sym_allow_pragma, 3140), (sym_test_pragma, 7490), (sym_once_pragma, 7490),
     (sym_must_call_pragma, 7490), (sym_export_pragma, 7490), (sym_pou_pragma, 7194),
     (sym_direct_variable, 7675), (sym_deref_expression, 2373), (sym_variable, 7599),
     (sym_var_access, 2373), (sym_input_decls, 3196), (sym_output_decls, 3196),
     (sym_in_out_decls, 3196), (sym_var_decls, 3196), (sym_temp_var_decls, 3196),
     (sym_external_var_decls, 3197), (sym_global_var_decls, 2947), (sym_func_body, 10432),
     (sym_method_decl, 3159), (sym__method_decl_variables, 2368), (sym_prog_access_decls, 3043),
     (sym_config_init, 3047), (sym_variable_access, 7530), (sym_func_call, 2961),
     (sym_stmt_list, 8165), (sym__stmt, 2024), (sym_assign, 3150), (sym_if_stmt, 3150),
     (sym_case_stmt, 3150), (sym_for_stmt, 3150), (sym_while_stmt, 3150), (sym_repeat_stmt, 3150),
     (sym_raise_stmt, 3150), (sym_try_stmt, 3150), (sym_ERR_clause_outside_try, 3150),
     (sym_begin_path_expression, 2943), (sym_invocation, 2934), (sym_any_invocation, 2935),
     (sym_this_invocation, 2641), (sym_super_invocation, 2641), (sym_super_body_invocation, 2935),
     (sym_path_expression, 2627), (sym_field_expression, 2373), (sym_index_expression, 2373),
     (sym_ladder_diagram, 8165), (sym_fb_diagram, 8165), (aux_sym_func_decl_repeat1, 7194),
     (aux_sym_method_decl_repeat1, 2368), (aux_sym_stmt_list_repeat1, 2024),
     (aux_sym_ladder_diagram_repeat1, 7628), (aux_sym_fb_diagram_repeat1, 7633),
     (sym_identifier, 298), (aux_sym_ERR_unexpected_this_in_path_token1, 304),
     (aux_sym_ERR_unexpected_super_in_path_token1, 306), (sym_line_comment, 3),
     (anon_sym_LBRACE, 308), (aux_sym_test_pragma_token1, 9), (aux_sym_once_pragma_token1, 11),
     (aux_sym_must_call_pragma_token1, 13), (aux_sym_export_pragma_token1, 15),
     (anon_sym_SEMI, 310), (anon_sym_PERCENT, 312), (aux_sym_input_decls_token1, 2094),
     (aux_sym_output_decls_token1, 2096), (aux_sym_in_out_decls_token1, 318),
     (aux_sym_var_decls_token1, 2098), (aux_sym_temp_var_decls_token1, 322),
     (aux_sym_external_var_decls_token1, 324), (aux_sym_global_var_decls_token1, 326),
     (aux_sym_method_decl_token1, 330), (aux_sym_method_decl_token3, 2648),
     (aux_sym_prog_access_decls_token1, 332), (aux_sym_config_init_token1, 336),
     (aux_sym__stmt_token1, 340), (aux_sym__stmt_token2, 340), (aux_sym__stmt_token3, 340),
     (aux_sym_if_stmt_token1, 342), (aux_sym_case_stmt_token1, 344), (aux_sym_for_stmt_token1, 346),
     (aux_sym_while_stmt_token1, 348), (aux_sym_repeat_stmt_token1, 350),
     (aux_sym_raise_stmt_token1, 352), (aux_sym_try_stmt_token1, 354),
     (aux_sym_try_stmt_token2, 356), (aux_sym_catch_clause_token1, 356),
     (aux_sym_finally_clause_token1, 356), (sym_ld_rung, 2102), (sym_fbd_network, 2104),
     (sym_c_style_comment, 3), (sym_pascal_style_comment, 3), (sym_pragma, 3)]"

lemma ts_parse_row_1094_scan: "row_scan tokens_63_2 0 ts_parse_row_1094 = Some (Suc (Suc (Suc (Suc 0))))"
  unfolding ts_parse_row_1094_def by simp

text \<open>Lines 177126 to 177229.\<close>

definition ts_parse_row_1095 :: parse_row where
  "ts_parse_row_1095 =
    [(sym_ERR_assign_func_call, 7530), (sym_ERR_unexpected_this_in_path, 2372),
     (sym_ERR_unexpected_super_in_path, 2372), (sym_ERR_var_access_not_allowed, 3196),
     (sym_ERR_var_config_not_allowed, 3196), (sym_ERR_var_external_not_allowed, 3196),
     (sym_ERR_var_global_not_allowed, 3196), (sym_ERR_method_decl_in_body, 3150),
     (sym_extern_pragma, 7490), (sym_wasm_pragma, 3150), (sym_warn_pragma, 7490),
     (sym_allow_pragma, 3140), (sym_test_pragma, 7490), (sym_once_pragma, 7490),
     (sym_must_call_pragma, 7490), (sym_export_pragma, 7490), (sym_pou_pragma, 7194),
     (sym_direct_variable, 7675), (sym_deref_expression, 2373), (sym_variable, 7599),
     (sym_var_access, 2373), (sym_input_decls, 3196), (sym_output_decls, 3196),
     (sym_in_out_decls, 3196), (sym_var_decls, 3196), (sym_temp_var_decls, 3196),
     (sym_external_var_decls, 3197), (sym_global_var_decls, 2947), (sym_func_body, 10433),
     (sym_method_decl, 3159), (sym__method_decl_variables, 2368), (sym_prog_access_decls, 3043),
     (sym_config_init, 3047), (sym_variable_access, 7530), (sym_func_call, 2961),
     (sym_stmt_list, 8165), (sym__stmt, 2024), (sym_assign, 3150), (sym_if_stmt, 3150),
     (sym_case_stmt, 3150), (sym_for_stmt, 3150), (sym_while_stmt, 3150), (sym_repeat_stmt, 3150),
     (sym_raise_stmt, 3150), (sym_try_stmt, 3150), (sym_ERR_clause_outside_try, 3150),
     (sym_begin_path_expression, 2943), (sym_invocation, 2934), (sym_any_invocation, 2935),
     (sym_this_invocation, 2641), (sym_super_invocation, 2641), (sym_super_body_invocation, 2935),
     (sym_path_expression, 2627), (sym_field_expression, 2373), (sym_index_expression, 2373),
     (sym_ladder_diagram, 8165), (sym_fb_diagram, 8165), (aux_sym_func_decl_repeat1, 7194),
     (aux_sym_method_decl_repeat1, 2368), (aux_sym_stmt_list_repeat1, 2024),
     (aux_sym_ladder_diagram_repeat1, 7628), (aux_sym_fb_diagram_repeat1, 7633),
     (sym_identifier, 298), (aux_sym_ERR_unexpected_this_in_path_token1, 304),
     (aux_sym_ERR_unexpected_super_in_path_token1, 306), (sym_line_comment, 3),
     (anon_sym_LBRACE, 308), (aux_sym_test_pragma_token1, 9), (aux_sym_once_pragma_token1, 11),
     (aux_sym_must_call_pragma_token1, 13), (aux_sym_export_pragma_token1, 15),
     (anon_sym_SEMI, 310), (anon_sym_PERCENT, 312), (aux_sym_input_decls_token1, 2094),
     (aux_sym_output_decls_token1, 2096), (aux_sym_in_out_decls_token1, 318),
     (aux_sym_var_decls_token1, 2098), (aux_sym_temp_var_decls_token1, 322),
     (aux_sym_external_var_decls_token1, 324), (aux_sym_global_var_decls_token1, 326),
     (aux_sym_method_decl_token1, 330), (aux_sym_method_decl_token3, 2650),
     (aux_sym_prog_access_decls_token1, 332), (aux_sym_config_init_token1, 336),
     (aux_sym__stmt_token1, 340), (aux_sym__stmt_token2, 340), (aux_sym__stmt_token3, 340),
     (aux_sym_if_stmt_token1, 342), (aux_sym_case_stmt_token1, 344), (aux_sym_for_stmt_token1, 346),
     (aux_sym_while_stmt_token1, 348), (aux_sym_repeat_stmt_token1, 350),
     (aux_sym_raise_stmt_token1, 352), (aux_sym_try_stmt_token1, 354),
     (aux_sym_try_stmt_token2, 356), (aux_sym_catch_clause_token1, 356),
     (aux_sym_finally_clause_token1, 356), (sym_ld_rung, 2102), (sym_fbd_network, 2104),
     (sym_c_style_comment, 3), (sym_pascal_style_comment, 3), (sym_pragma, 3)]"

lemma ts_parse_row_1095_scan: "row_scan tokens_63_2 0 ts_parse_row_1095 = Some (Suc (Suc (Suc (Suc 0))))"
  unfolding ts_parse_row_1095_def by simp

text \<open>Lines 177230 to 177333.\<close>

definition ts_parse_row_1096 :: parse_row where
  "ts_parse_row_1096 =
    [(sym_ERR_assign_func_call, 7530), (sym_ERR_unexpected_this_in_path, 2372),
     (sym_ERR_unexpected_super_in_path, 2372), (sym_ERR_var_access_not_allowed, 3196),
     (sym_ERR_var_config_not_allowed, 3196), (sym_ERR_var_external_not_allowed, 3196),
     (sym_ERR_var_global_not_allowed, 3196), (sym_ERR_method_decl_in_body, 3150),
     (sym_extern_pragma, 7490), (sym_wasm_pragma, 3150), (sym_warn_pragma, 7490),
     (sym_allow_pragma, 3140), (sym_test_pragma, 7490), (sym_once_pragma, 7490),
     (sym_must_call_pragma, 7490), (sym_export_pragma, 7490), (sym_pou_pragma, 7194),
     (sym_direct_variable, 7675), (sym_deref_expression, 2373), (sym_variable, 7599),
     (sym_var_access, 2373), (sym_input_decls, 3196), (sym_output_decls, 3196),
     (sym_in_out_decls, 3196), (sym_var_decls, 3196), (sym_temp_var_decls, 3196),
     (sym_external_var_decls, 3197), (sym_global_var_decls, 2947), (sym_func_body, 9089),
     (sym_method_decl, 3159), (sym__method_decl_variables, 2368), (sym_prog_access_decls, 3043),
     (sym_config_init, 3047), (sym_variable_access, 7530), (sym_func_call, 2961),
     (sym_stmt_list, 8165), (sym__stmt, 2024), (sym_assign, 3150), (sym_if_stmt, 3150),
     (sym_case_stmt, 3150), (sym_for_stmt, 3150), (sym_while_stmt, 3150), (sym_repeat_stmt, 3150),
     (sym_raise_stmt, 3150), (sym_try_stmt, 3150), (sym_ERR_clause_outside_try, 3150),
     (sym_begin_path_expression, 2943), (sym_invocation, 2934), (sym_any_invocation, 2935),
     (sym_this_invocation, 2641), (sym_super_invocation, 2641), (sym_super_body_invocation, 2935),
     (sym_path_expression, 2627), (sym_field_expression, 2373), (sym_index_expression, 2373),
     (sym_ladder_diagram, 8165), (sym_fb_diagram, 8165), (aux_sym_func_decl_repeat1, 7194),
     (aux_sym_method_decl_repeat1, 2368), (aux_sym_stmt_list_repeat1, 2024),
     (aux_sym_ladder_diagram_repeat1, 7628), (aux_sym_fb_diagram_repeat1, 7633),
     (sym_identifier, 298), (aux_sym_ERR_unexpected_this_in_path_token1, 304),
     (aux_sym_ERR_unexpected_super_in_path_token1, 306), (sym_line_comment, 3),
     (anon_sym_LBRACE, 308), (aux_sym_test_pragma_token1, 9), (aux_sym_once_pragma_token1, 11),
     (aux_sym_must_call_pragma_token1, 13), (aux_sym_export_pragma_token1, 15),
     (anon_sym_SEMI, 310), (anon_sym_PERCENT, 312), (aux_sym_input_decls_token1, 2094),
     (aux_sym_output_decls_token1, 2096), (aux_sym_in_out_decls_token1, 318),
     (aux_sym_var_decls_token1, 2098), (aux_sym_temp_var_decls_token1, 322),
     (aux_sym_external_var_decls_token1, 324), (aux_sym_global_var_decls_token1, 326),
     (aux_sym_method_decl_token1, 330), (aux_sym_method_decl_token3, 2652),
     (aux_sym_prog_access_decls_token1, 332), (aux_sym_config_init_token1, 336),
     (aux_sym__stmt_token1, 340), (aux_sym__stmt_token2, 340), (aux_sym__stmt_token3, 340),
     (aux_sym_if_stmt_token1, 342), (aux_sym_case_stmt_token1, 344), (aux_sym_for_stmt_token1, 346),
     (aux_sym_while_stmt_token1, 348), (aux_sym_repeat_stmt_token1, 350),
     (aux_sym_raise_stmt_token1, 352), (aux_sym_try_stmt_token1, 354),
     (aux_sym_try_stmt_token2, 356), (aux_sym_catch_clause_token1, 356),
     (aux_sym_finally_clause_token1, 356), (sym_ld_rung, 2102), (sym_fbd_network, 2104),
     (sym_c_style_comment, 3), (sym_pascal_style_comment, 3), (sym_pragma, 3)]"

lemma ts_parse_row_1096_scan: "row_scan tokens_63_2 0 ts_parse_row_1096 = Some (Suc (Suc (Suc (Suc 0))))"
  unfolding ts_parse_row_1096_def by simp

text \<open>Lines 177334 to 177437.\<close>

definition ts_parse_row_1097 :: parse_row where
  "ts_parse_row_1097 =
    [(sym_ERR_assign_func_call, 7530), (sym_ERR_unexpected_this_in_path, 2372),
     (sym_ERR_unexpected_super_in_path, 2372), (sym_ERR_var_access_not_allowed, 3196),
     (sym_ERR_var_config_not_allowed, 3196), (sym_ERR_var_external_not_allowed, 3196),
     (sym_ERR_var_global_not_allowed, 3196), (sym_ERR_method_decl_in_body, 3150),
     (sym_extern_pragma, 7490), (sym_wasm_pragma, 3150), (sym_warn_pragma, 7490),
     (sym_allow_pragma, 3140), (sym_test_pragma, 7490), (sym_once_pragma, 7490),
     (sym_must_call_pragma, 7490), (sym_export_pragma, 7490), (sym_pou_pragma, 7194),
     (sym_direct_variable, 7675), (sym_deref_expression, 2373), (sym_variable, 7599),
     (sym_var_access, 2373), (sym_input_decls, 3196), (sym_output_decls, 3196),
     (sym_in_out_decls, 3196), (sym_var_decls, 3196), (sym_temp_var_decls, 3196),
     (sym_external_var_decls, 3197), (sym_global_var_decls, 2947), (sym_func_body, 10306),
     (sym_method_decl, 3159), (sym__method_decl_variables, 995), (sym_prog_access_decls, 3043),
     (sym_config_init, 3047), (sym_variable_access, 7530), (sym_func_call, 2961),
     (sym_stmt_list, 8165), (sym__stmt, 2024), (sym_assign, 3150), (sym_if_stmt, 3150),
     (sym_case_stmt, 3150), (sym_for_stmt, 3150), (sym_while_stmt, 3150), (sym_repeat_stmt, 3150),
     (sym_raise_stmt, 3150), (sym_try_stmt, 3150), (sym_ERR_clause_outside_try, 3150),
     (sym_begin_path_expression, 2943), (sym_invocation, 2934), (sym_any_invocation, 2935),
     (sym_this_invocation, 2641), (sym_super_invocation, 2641), (sym_super_body_invocation, 2935),
     (sym_path_expression, 2627), (sym_field_expression, 2373), (sym_index_expression, 2373),
     (sym_ladder_diagram, 8165), (sym_fb_diagram, 8165), (aux_sym_func_decl_repeat1, 7194),
     (aux_sym_method_decl_repeat1, 995), (aux_sym_stmt_list_repeat1, 2024),
     (aux_sym_ladder_diagram_repeat1, 7628), (aux_sym_fb_diagram_repeat1, 7633),
     (sym_identifier, 298), (aux_sym_ERR_unexpected_this_in_path_token1, 304),
     (aux_sym_ERR_unexpected_super_in_path_token1, 306), (sym_line_comment, 3),
     (anon_sym_LBRACE, 308), (aux_sym_test_pragma_token1, 9), (aux_sym_once_pragma_token1, 11),
     (aux_sym_must_call_pragma_token1, 13), (aux_sym_export_pragma_token1, 15),
     (anon_sym_SEMI, 310), (anon_sym_PERCENT, 312), (aux_sym_input_decls_token1, 2094),
     (aux_sym_output_decls_token1, 2096), (aux_sym_in_out_decls_token1, 318),
     (aux_sym_var_decls_token1, 2098), (aux_sym_temp_var_decls_token1, 322),
     (aux_sym_external_var_decls_token1, 324), (aux_sym_global_var_decls_token1, 326),
     (aux_sym_method_decl_token1, 330), (aux_sym_method_decl_token3, 2654),
     (aux_sym_prog_access_decls_token1, 332), (aux_sym_config_init_token1, 336),
     (aux_sym__stmt_token1, 340), (aux_sym__stmt_token2, 340), (aux_sym__stmt_token3, 340),
     (aux_sym_if_stmt_token1, 342), (aux_sym_case_stmt_token1, 344), (aux_sym_for_stmt_token1, 346),
     (aux_sym_while_stmt_token1, 348), (aux_sym_repeat_stmt_token1, 350),
     (aux_sym_raise_stmt_token1, 352), (aux_sym_try_stmt_token1, 354),
     (aux_sym_try_stmt_token2, 356), (aux_sym_catch_clause_token1, 356),
     (aux_sym_finally_clause_token1, 356), (sym_ld_rung, 2102), (sym_fbd_network, 2104),
     (sym_c_style_comment, 3), (sym_pascal_style_comment, 3), (sym_pragma, 3)]"

lemma ts_parse_row_1097_scan: "row_scan tokens_63_2 0 ts_parse_row_1097 = Some (Suc (Suc (Suc (Suc 0))))"
  unfolding ts_parse_row_1097_def by simp

text \<open>Lines 177438 to 177541.\<close>

definition ts_parse_row_1098 :: parse_row where
  "ts_parse_row_1098 =
    [(sym_ERR_assign_func_call, 7530), (sym_ERR_unexpected_this_in_path, 2372),
     (sym_ERR_unexpected_super_in_path, 2372), (sym_ERR_var_access_not_allowed, 3196),
     (sym_ERR_var_config_not_allowed, 3196), (sym_ERR_var_external_not_allowed, 3196),
     (sym_ERR_var_global_not_allowed, 3196), (sym_ERR_method_decl_in_body, 3150),
     (sym_extern_pragma, 7490), (sym_wasm_pragma, 3150), (sym_warn_pragma, 7490),
     (sym_allow_pragma, 3140), (sym_test_pragma, 7490), (sym_once_pragma, 7490),
     (sym_must_call_pragma, 7490), (sym_export_pragma, 7490), (sym_pou_pragma, 7194),
     (sym_direct_variable, 7675), (sym_deref_expression, 2373), (sym_variable, 7599),
     (sym_var_access, 2373), (sym_input_decls, 3196), (sym_output_decls, 3196),
     (sym_in_out_decls, 3196), (sym_var_decls, 3196), (sym_temp_var_decls, 3196),
     (sym_external_var_decls, 3197), (sym_global_var_decls, 2947), (sym_func_body, 8209),
     (sym_method_decl, 3159), (sym__method_decl_variables, 2368), (sym_prog_access_decls, 3043),
     (sym_config_init, 3047), (sym_variable_access, 7530), (sym_func_call, 2961),
     (sym_stmt_list, 8165), (sym__stmt, 2024), (sym_assign, 3150), (sym_if_stmt, 3150),
     (sym_case_stmt, 3150), (sym_for_stmt, 3150), (sym_while_stmt, 3150), (sym_repeat_stmt, 3150),
     (sym_raise_stmt, 3150), (sym_try_stmt, 3150), (sym_ERR_clause_outside_try, 3150),
     (sym_begin_path_expression, 2943), (sym_invocation, 2934), (sym_any_invocation, 2935),
     (sym_this_invocation, 2641), (sym_super_invocation, 2641), (sym_super_body_invocation, 2935),
     (sym_path_expression, 2627), (sym_field_expression, 2373), (sym_index_expression, 2373),
     (sym_ladder_diagram, 8165), (sym_fb_diagram, 8165), (aux_sym_func_decl_repeat1, 7194),
     (aux_sym_method_decl_repeat1, 2368), (aux_sym_stmt_list_repeat1, 2024),
     (aux_sym_ladder_diagram_repeat1, 7628), (aux_sym_fb_diagram_repeat1, 7633),
     (sym_identifier, 298), (aux_sym_ERR_unexpected_this_in_path_token1, 304),
     (aux_sym_ERR_unexpected_super_in_path_token1, 306), (sym_line_comment, 3),
     (anon_sym_LBRACE, 308), (aux_sym_test_pragma_token1, 9), (aux_sym_once_pragma_token1, 11),
     (aux_sym_must_call_pragma_token1, 13), (aux_sym_export_pragma_token1, 15),
     (anon_sym_SEMI, 310), (anon_sym_PERCENT, 312), (aux_sym_input_decls_token1, 2094),
     (aux_sym_output_decls_token1, 2096), (aux_sym_in_out_decls_token1, 318),
     (aux_sym_var_decls_token1, 2098), (aux_sym_temp_var_decls_token1, 322),
     (aux_sym_external_var_decls_token1, 324), (aux_sym_global_var_decls_token1, 326),
     (aux_sym_method_decl_token1, 330), (aux_sym_method_decl_token3, 2656),
     (aux_sym_prog_access_decls_token1, 332), (aux_sym_config_init_token1, 336),
     (aux_sym__stmt_token1, 340), (aux_sym__stmt_token2, 340), (aux_sym__stmt_token3, 340),
     (aux_sym_if_stmt_token1, 342), (aux_sym_case_stmt_token1, 344), (aux_sym_for_stmt_token1, 346),
     (aux_sym_while_stmt_token1, 348), (aux_sym_repeat_stmt_token1, 350),
     (aux_sym_raise_stmt_token1, 352), (aux_sym_try_stmt_token1, 354),
     (aux_sym_try_stmt_token2, 356), (aux_sym_catch_clause_token1, 356),
     (aux_sym_finally_clause_token1, 356), (sym_ld_rung, 2102), (sym_fbd_network, 2104),
     (sym_c_style_comment, 3), (sym_pascal_style_comment, 3), (sym_pragma, 3)]"

lemma ts_parse_row_1098_scan: "row_scan tokens_63_2 0 ts_parse_row_1098 = Some (Suc (Suc (Suc (Suc 0))))"
  unfolding ts_parse_row_1098_def by simp

text \<open>Lines 177542 to 177645.\<close>

definition ts_parse_row_1099 :: parse_row where
  "ts_parse_row_1099 =
    [(sym_ERR_assign_func_call, 7530), (sym_ERR_unexpected_this_in_path, 2372),
     (sym_ERR_unexpected_super_in_path, 2372), (sym_ERR_var_access_not_allowed, 3196),
     (sym_ERR_var_config_not_allowed, 3196), (sym_ERR_var_external_not_allowed, 3196),
     (sym_ERR_var_global_not_allowed, 3196), (sym_ERR_method_decl_in_body, 3150),
     (sym_extern_pragma, 7490), (sym_wasm_pragma, 3150), (sym_warn_pragma, 7490),
     (sym_allow_pragma, 3140), (sym_test_pragma, 7490), (sym_once_pragma, 7490),
     (sym_must_call_pragma, 7490), (sym_export_pragma, 7490), (sym_pou_pragma, 7194),
     (sym_direct_variable, 7675), (sym_deref_expression, 2373), (sym_variable, 7599),
     (sym_var_access, 2373), (sym_input_decls, 3196), (sym_output_decls, 3196),
     (sym_in_out_decls, 3196), (sym_var_decls, 3196), (sym_temp_var_decls, 3196),
     (sym_external_var_decls, 3197), (sym_global_var_decls, 2947), (sym_func_body, 8222),
     (sym_method_decl, 3159), (sym__method_decl_variables, 2368), (sym_prog_access_decls, 3043),
     (sym_config_init, 3047), (sym_variable_access, 7530), (sym_func_call, 2961),
     (sym_stmt_list, 8165), (sym__stmt, 2024), (sym_assign, 3150), (sym_if_stmt, 3150),
     (sym_case_stmt, 3150), (sym_for_stmt, 3150), (sym_while_stmt, 3150), (sym_repeat_stmt, 3150),
     (sym_raise_stmt, 3150), (sym_try_stmt, 3150), (sym_ERR_clause_outside_try, 3150),
     (sym_begin_path_expression, 2943), (sym_invocation, 2934), (sym_any_invocation, 2935),
     (sym_this_invocation, 2641), (sym_super_invocation, 2641), (sym_super_body_invocation, 2935),
     (sym_path_expression, 2627), (sym_field_expression, 2373), (sym_index_expression, 2373),
     (sym_ladder_diagram, 8165), (sym_fb_diagram, 8165), (aux_sym_func_decl_repeat1, 7194),
     (aux_sym_method_decl_repeat1, 2368), (aux_sym_stmt_list_repeat1, 2024),
     (aux_sym_ladder_diagram_repeat1, 7628), (aux_sym_fb_diagram_repeat1, 7633),
     (sym_identifier, 298), (aux_sym_ERR_unexpected_this_in_path_token1, 304),
     (aux_sym_ERR_unexpected_super_in_path_token1, 306), (sym_line_comment, 3),
     (anon_sym_LBRACE, 308), (aux_sym_test_pragma_token1, 9), (aux_sym_once_pragma_token1, 11),
     (aux_sym_must_call_pragma_token1, 13), (aux_sym_export_pragma_token1, 15),
     (anon_sym_SEMI, 310), (anon_sym_PERCENT, 312), (aux_sym_input_decls_token1, 2094),
     (aux_sym_output_decls_token1, 2096), (aux_sym_in_out_decls_token1, 318),
     (aux_sym_var_decls_token1, 2098), (aux_sym_temp_var_decls_token1, 322),
     (aux_sym_external_var_decls_token1, 324), (aux_sym_global_var_decls_token1, 326),
     (aux_sym_method_decl_token1, 330), (aux_sym_method_decl_token3, 2658),
     (aux_sym_prog_access_decls_token1, 332), (aux_sym_config_init_token1, 336),
     (aux_sym__stmt_token1, 340), (aux_sym__stmt_token2, 340), (aux_sym__stmt_token3, 340),
     (aux_sym_if_stmt_token1, 342), (aux_sym_case_stmt_token1, 344), (aux_sym_for_stmt_token1, 346),
     (aux_sym_while_stmt_token1, 348), (aux_sym_repeat_stmt_token1, 350),
     (aux_sym_raise_stmt_token1, 352), (aux_sym_try_stmt_token1, 354),
     (aux_sym_try_stmt_token2, 356), (aux_sym_catch_clause_token1, 356),
     (aux_sym_finally_clause_token1, 356), (sym_ld_rung, 2102), (sym_fbd_network, 2104),
     (sym_c_style_comment, 3), (sym_pascal_style_comment, 3), (sym_pragma, 3)]"

lemma ts_parse_row_1099_scan: "row_scan tokens_63_2 0 ts_parse_row_1099 = Some (Suc (Suc (Suc (Suc 0))))"
  unfolding ts_parse_row_1099_def by simp

text \<open>Lines 177646 to 177749.\<close>

definition ts_parse_row_1100 :: parse_row where
  "ts_parse_row_1100 =
    [(sym_ERR_assign_func_call, 7530), (sym_ERR_unexpected_this_in_path, 2372),
     (sym_ERR_unexpected_super_in_path, 2372), (sym_ERR_var_access_not_allowed, 3196),
     (sym_ERR_var_config_not_allowed, 3196), (sym_ERR_var_external_not_allowed, 3196),
     (sym_ERR_var_global_not_allowed, 3196), (sym_ERR_method_decl_in_body, 3150),
     (sym_extern_pragma, 7490), (sym_wasm_pragma, 3150), (sym_warn_pragma, 7490),
     (sym_allow_pragma, 3140), (sym_test_pragma, 7490), (sym_once_pragma, 7490),
     (sym_must_call_pragma, 7490), (sym_export_pragma, 7490), (sym_pou_pragma, 7194),
     (sym_direct_variable, 7675), (sym_deref_expression, 2373), (sym_variable, 7599),
     (sym_var_access, 2373), (sym_input_decls, 3196), (sym_output_decls, 3196),
     (sym_in_out_decls, 3196), (sym_var_decls, 3196), (sym_temp_var_decls, 3196),
     (sym_external_var_decls, 3197), (sym_global_var_decls, 2947), (sym_func_body, 8242),
     (sym_method_decl, 3159), (sym__method_decl_variables, 2368), (sym_prog_access_decls, 3043),
     (sym_config_init, 3047), (sym_variable_access, 7530), (sym_func_call, 2961),
     (sym_stmt_list, 8165), (sym__stmt, 2024), (sym_assign, 3150), (sym_if_stmt, 3150),
     (sym_case_stmt, 3150), (sym_for_stmt, 3150), (sym_while_stmt, 3150), (sym_repeat_stmt, 3150),
     (sym_raise_stmt, 3150), (sym_try_stmt, 3150), (sym_ERR_clause_outside_try, 3150),
     (sym_begin_path_expression, 2943), (sym_invocation, 2934), (sym_any_invocation, 2935),
     (sym_this_invocation, 2641), (sym_super_invocation, 2641), (sym_super_body_invocation, 2935),
     (sym_path_expression, 2627), (sym_field_expression, 2373), (sym_index_expression, 2373),
     (sym_ladder_diagram, 8165), (sym_fb_diagram, 8165), (aux_sym_func_decl_repeat1, 7194),
     (aux_sym_method_decl_repeat1, 2368), (aux_sym_stmt_list_repeat1, 2024),
     (aux_sym_ladder_diagram_repeat1, 7628), (aux_sym_fb_diagram_repeat1, 7633),
     (sym_identifier, 298), (aux_sym_ERR_unexpected_this_in_path_token1, 304),
     (aux_sym_ERR_unexpected_super_in_path_token1, 306), (sym_line_comment, 3),
     (anon_sym_LBRACE, 308), (aux_sym_test_pragma_token1, 9), (aux_sym_once_pragma_token1, 11),
     (aux_sym_must_call_pragma_token1, 13), (aux_sym_export_pragma_token1, 15),
     (anon_sym_SEMI, 310), (anon_sym_PERCENT, 312), (aux_sym_input_decls_token1, 2094),
     (aux_sym_output_decls_token1, 2096), (aux_sym_in_out_decls_token1, 318),
     (aux_sym_var_decls_token1, 2098), (aux_sym_temp_var_decls_token1, 322),
     (aux_sym_external_var_decls_token1, 324), (aux_sym_global_var_decls_token1, 326),
     (aux_sym_method_decl_token1, 330), (aux_sym_method_decl_token3, 2660),
     (aux_sym_prog_access_decls_token1, 332), (aux_sym_config_init_token1, 336),
     (aux_sym__stmt_token1, 340), (aux_sym__stmt_token2, 340), (aux_sym__stmt_token3, 340),
     (aux_sym_if_stmt_token1, 342), (aux_sym_case_stmt_token1, 344), (aux_sym_for_stmt_token1, 346),
     (aux_sym_while_stmt_token1, 348), (aux_sym_repeat_stmt_token1, 350),
     (aux_sym_raise_stmt_token1, 352), (aux_sym_try_stmt_token1, 354),
     (aux_sym_try_stmt_token2, 356), (aux_sym_catch_clause_token1, 356),
     (aux_sym_finally_clause_token1, 356), (sym_ld_rung, 2102), (sym_fbd_network, 2104),
     (sym_c_style_comment, 3), (sym_pascal_style_comment, 3), (sym_pragma, 3)]"

lemma ts_parse_row_1100_scan: "row_scan tokens_63_2 0 ts_parse_row_1100 = Some (Suc (Suc (Suc (Suc 0))))"
  unfolding ts_parse_row_1100_def by simp

text \<open>Lines 177750 to 177853.\<close>

definition ts_parse_row_1101 :: parse_row where
  "ts_parse_row_1101 =
    [(sym_ERR_assign_func_call, 7530), (sym_ERR_unexpected_this_in_path, 2372),
     (sym_ERR_unexpected_super_in_path, 2372), (sym_ERR_var_access_not_allowed, 3196),
     (sym_ERR_var_config_not_allowed, 3196), (sym_ERR_var_external_not_allowed, 3196),
     (sym_ERR_var_global_not_allowed, 3196), (sym_ERR_method_decl_in_body, 3150),
     (sym_extern_pragma, 7490), (sym_wasm_pragma, 3150), (sym_warn_pragma, 7490),
     (sym_allow_pragma, 3140), (sym_test_pragma, 7490), (sym_once_pragma, 7490),
     (sym_must_call_pragma, 7490), (sym_export_pragma, 7490), (sym_pou_pragma, 7194),
     (sym_direct_variable, 7675), (sym_deref_expression, 2373), (sym_variable, 7599),
     (sym_var_access, 2373), (sym_input_decls, 3196), (sym_output_decls, 3196),
     (sym_in_out_decls, 3196), (sym_var_decls, 3196), (sym_temp_var_decls, 3196),
     (sym_external_var_decls, 3197), (sym_global_var_decls, 2947), (sym_func_body, 8262),
     (sym_method_decl, 3159), (sym__method_decl_variables, 1000), (sym_prog_access_decls, 3043),
     (sym_config_init, 3047), (sym_variable_access, 7530), (sym_func_call, 2961),
     (sym_stmt_list, 8165), (sym__stmt, 2024), (sym_assign, 3150), (sym_if_stmt, 3150),
     (sym_case_stmt, 3150), (sym_for_stmt, 3150), (sym_while_stmt, 3150), (sym_repeat_stmt, 3150),
     (sym_raise_stmt, 3150), (sym_try_stmt, 3150), (sym_ERR_clause_outside_try, 3150),
     (sym_begin_path_expression, 2943), (sym_invocation, 2934), (sym_any_invocation, 2935),
     (sym_this_invocation, 2641), (sym_super_invocation, 2641), (sym_super_body_invocation, 2935),
     (sym_path_expression, 2627), (sym_field_expression, 2373), (sym_index_expression, 2373),
     (sym_ladder_diagram, 8165), (sym_fb_diagram, 8165), (aux_sym_func_decl_repeat1, 7194),
     (aux_sym_method_decl_repeat1, 1000), (aux_sym_stmt_list_repeat1, 2024),
     (aux_sym_ladder_diagram_repeat1, 7628), (aux_sym_fb_diagram_repeat1, 7633),
     (sym_identifier, 298), (aux_sym_ERR_unexpected_this_in_path_token1, 304),
     (aux_sym_ERR_unexpected_super_in_path_token1, 306), (sym_line_comment, 3),
     (anon_sym_LBRACE, 308), (aux_sym_test_pragma_token1, 9), (aux_sym_once_pragma_token1, 11),
     (aux_sym_must_call_pragma_token1, 13), (aux_sym_export_pragma_token1, 15),
     (anon_sym_SEMI, 310), (anon_sym_PERCENT, 312), (aux_sym_input_decls_token1, 2094),
     (aux_sym_output_decls_token1, 2096), (aux_sym_in_out_decls_token1, 318),
     (aux_sym_var_decls_token1, 2098), (aux_sym_temp_var_decls_token1, 322),
     (aux_sym_external_var_decls_token1, 324), (aux_sym_global_var_decls_token1, 326),
     (aux_sym_method_decl_token1, 330), (aux_sym_method_decl_token3, 2662),
     (aux_sym_prog_access_decls_token1, 332), (aux_sym_config_init_token1, 336),
     (aux_sym__stmt_token1, 340), (aux_sym__stmt_token2, 340), (aux_sym__stmt_token3, 340),
     (aux_sym_if_stmt_token1, 342), (aux_sym_case_stmt_token1, 344), (aux_sym_for_stmt_token1, 346),
     (aux_sym_while_stmt_token1, 348), (aux_sym_repeat_stmt_token1, 350),
     (aux_sym_raise_stmt_token1, 352), (aux_sym_try_stmt_token1, 354),
     (aux_sym_try_stmt_token2, 356), (aux_sym_catch_clause_token1, 356),
     (aux_sym_finally_clause_token1, 356), (sym_ld_rung, 2102), (sym_fbd_network, 2104),
     (sym_c_style_comment, 3), (sym_pascal_style_comment, 3), (sym_pragma, 3)]"

lemma ts_parse_row_1101_scan: "row_scan tokens_63_2 0 ts_parse_row_1101 = Some (Suc (Suc (Suc (Suc 0))))"
  unfolding ts_parse_row_1101_def by simp

text \<open>Lines 177854 to 177957.\<close>

definition ts_parse_row_1102 :: parse_row where
  "ts_parse_row_1102 =
    [(sym_ERR_assign_func_call, 7530), (sym_ERR_unexpected_this_in_path, 2372),
     (sym_ERR_unexpected_super_in_path, 2372), (sym_ERR_var_access_not_allowed, 3196),
     (sym_ERR_var_config_not_allowed, 3196), (sym_ERR_var_external_not_allowed, 3196),
     (sym_ERR_var_global_not_allowed, 3196), (sym_ERR_method_decl_in_body, 3150),
     (sym_extern_pragma, 7490), (sym_wasm_pragma, 3150), (sym_warn_pragma, 7490),
     (sym_allow_pragma, 3140), (sym_test_pragma, 7490), (sym_once_pragma, 7490),
     (sym_must_call_pragma, 7490), (sym_export_pragma, 7490), (sym_pou_pragma, 7194),
     (sym_direct_variable, 7675), (sym_deref_expression, 2373), (sym_variable, 7599),
     (sym_var_access, 2373), (sym_input_decls, 3196), (sym_output_decls, 3196),
     (sym_in_out_decls, 3196), (sym_var_decls, 3196), (sym_temp_var_decls, 3196),
     (sym_external_var_decls, 3197), (sym_global_var_decls, 2947), (sym_func_body, 8292),
     (sym_method_decl, 3159), (sym__method_decl_variables, 1013), (sym_prog_access_decls, 3043),
     (sym_config_init, 3047), (sym_variable_access, 7530), (sym_func_call, 2961),
     (sym_stmt_list, 8165), (sym__stmt, 2024), (sym_assign, 3150), (sym_if_stmt, 3150),
     (sym_case_stmt, 3150), (sym_for_stmt, 3150), (sym_while_stmt, 3150), (sym_repeat_stmt, 3150),
     (sym_raise_stmt, 3150), (sym_try_stmt, 3150), (sym_ERR_clause_outside_try, 3150),
     (sym_begin_path_expression, 2943), (sym_invocation, 2934), (sym_any_invocation, 2935),
     (sym_this_invocation, 2641), (sym_super_invocation, 2641), (sym_super_body_invocation, 2935),
     (sym_path_expression, 2627), (sym_field_expression, 2373), (sym_index_expression, 2373),
     (sym_ladder_diagram, 8165), (sym_fb_diagram, 8165), (aux_sym_func_decl_repeat1, 7194),
     (aux_sym_method_decl_repeat1, 1013), (aux_sym_stmt_list_repeat1, 2024),
     (aux_sym_ladder_diagram_repeat1, 7628), (aux_sym_fb_diagram_repeat1, 7633),
     (sym_identifier, 298), (aux_sym_ERR_unexpected_this_in_path_token1, 304),
     (aux_sym_ERR_unexpected_super_in_path_token1, 306), (sym_line_comment, 3),
     (anon_sym_LBRACE, 308), (aux_sym_test_pragma_token1, 9), (aux_sym_once_pragma_token1, 11),
     (aux_sym_must_call_pragma_token1, 13), (aux_sym_export_pragma_token1, 15),
     (anon_sym_SEMI, 310), (anon_sym_PERCENT, 312), (aux_sym_input_decls_token1, 2094),
     (aux_sym_output_decls_token1, 2096), (aux_sym_in_out_decls_token1, 318),
     (aux_sym_var_decls_token1, 2098), (aux_sym_temp_var_decls_token1, 322),
     (aux_sym_external_var_decls_token1, 324), (aux_sym_global_var_decls_token1, 326),
     (aux_sym_method_decl_token1, 330), (aux_sym_method_decl_token3, 2664),
     (aux_sym_prog_access_decls_token1, 332), (aux_sym_config_init_token1, 336),
     (aux_sym__stmt_token1, 340), (aux_sym__stmt_token2, 340), (aux_sym__stmt_token3, 340),
     (aux_sym_if_stmt_token1, 342), (aux_sym_case_stmt_token1, 344), (aux_sym_for_stmt_token1, 346),
     (aux_sym_while_stmt_token1, 348), (aux_sym_repeat_stmt_token1, 350),
     (aux_sym_raise_stmt_token1, 352), (aux_sym_try_stmt_token1, 354),
     (aux_sym_try_stmt_token2, 356), (aux_sym_catch_clause_token1, 356),
     (aux_sym_finally_clause_token1, 356), (sym_ld_rung, 2102), (sym_fbd_network, 2104),
     (sym_c_style_comment, 3), (sym_pascal_style_comment, 3), (sym_pragma, 3)]"

lemma ts_parse_row_1102_scan: "row_scan tokens_63_2 0 ts_parse_row_1102 = Some (Suc (Suc (Suc (Suc 0))))"
  unfolding ts_parse_row_1102_def by simp

text \<open>Lines 177958 to 178061.\<close>

definition ts_parse_row_1103 :: parse_row where
  "ts_parse_row_1103 =
    [(sym_ERR_assign_func_call, 7530), (sym_ERR_unexpected_this_in_path, 2372),
     (sym_ERR_unexpected_super_in_path, 2372), (sym_ERR_var_access_not_allowed, 3196),
     (sym_ERR_var_config_not_allowed, 3196), (sym_ERR_var_external_not_allowed, 3196),
     (sym_ERR_var_global_not_allowed, 3196), (sym_ERR_method_decl_in_body, 3150),
     (sym_extern_pragma, 7490), (sym_wasm_pragma, 3150), (sym_warn_pragma, 7490),
     (sym_allow_pragma, 3140), (sym_test_pragma, 7490), (sym_once_pragma, 7490),
     (sym_must_call_pragma, 7490), (sym_export_pragma, 7490), (sym_pou_pragma, 7194),
     (sym_direct_variable, 7675), (sym_deref_expression, 2373), (sym_variable, 7599),
     (sym_var_access, 2373), (sym_input_decls, 3196), (sym_output_decls, 3196),
     (sym_in_out_decls, 3196), (sym_var_decls, 3196), (sym_temp_var_decls, 3196),
     (sym_external_var_decls, 3197), (sym_global_var_decls, 2947), (sym_func_body, 8325),
     (sym_method_decl, 3159), (sym__method_decl_variables, 2368), (sym_prog_access_decls, 3043),
     (sym_config_init, 3047), (sym_variable_access, 7530), (sym_func_call, 2961),
     (sym_stmt_list, 8165), (sym__stmt, 2024), (sym_assign, 3150), (sym_if_stmt, 3150),
     (sym_case_stmt, 3150), (sym_for_stmt, 3150), (sym_while_stmt, 3150), (sym_repeat_stmt, 3150),
     (sym_raise_stmt, 3150), (sym_try_stmt, 3150), (sym_ERR_clause_outside_try, 3150),
     (sym_begin_path_expression, 2943), (sym_invocation, 2934), (sym_any_invocation, 2935),
     (sym_this_invocation, 2641), (sym_super_invocation, 2641), (sym_super_body_invocation, 2935),
     (sym_path_expression, 2627), (sym_field_expression, 2373), (sym_index_expression, 2373),
     (sym_ladder_diagram, 8165), (sym_fb_diagram, 8165), (aux_sym_func_decl_repeat1, 7194),
     (aux_sym_method_decl_repeat1, 2368), (aux_sym_stmt_list_repeat1, 2024),
     (aux_sym_ladder_diagram_repeat1, 7628), (aux_sym_fb_diagram_repeat1, 7633),
     (sym_identifier, 298), (aux_sym_ERR_unexpected_this_in_path_token1, 304),
     (aux_sym_ERR_unexpected_super_in_path_token1, 306), (sym_line_comment, 3),
     (anon_sym_LBRACE, 308), (aux_sym_test_pragma_token1, 9), (aux_sym_once_pragma_token1, 11),
     (aux_sym_must_call_pragma_token1, 13), (aux_sym_export_pragma_token1, 15),
     (anon_sym_SEMI, 310), (anon_sym_PERCENT, 312), (aux_sym_input_decls_token1, 2094),
     (aux_sym_output_decls_token1, 2096), (aux_sym_in_out_decls_token1, 318),
     (aux_sym_var_decls_token1, 2098), (aux_sym_temp_var_decls_token1, 322),
     (aux_sym_external_var_decls_token1, 324), (aux_sym_global_var_decls_token1, 326),
     (aux_sym_method_decl_token1, 330), (aux_sym_method_decl_token3, 2666),
     (aux_sym_prog_access_decls_token1, 332), (aux_sym_config_init_token1, 336),
     (aux_sym__stmt_token1, 340), (aux_sym__stmt_token2, 340), (aux_sym__stmt_token3, 340),
     (aux_sym_if_stmt_token1, 342), (aux_sym_case_stmt_token1, 344), (aux_sym_for_stmt_token1, 346),
     (aux_sym_while_stmt_token1, 348), (aux_sym_repeat_stmt_token1, 350),
     (aux_sym_raise_stmt_token1, 352), (aux_sym_try_stmt_token1, 354),
     (aux_sym_try_stmt_token2, 356), (aux_sym_catch_clause_token1, 356),
     (aux_sym_finally_clause_token1, 356), (sym_ld_rung, 2102), (sym_fbd_network, 2104),
     (sym_c_style_comment, 3), (sym_pascal_style_comment, 3), (sym_pragma, 3)]"

lemma ts_parse_row_1103_scan: "row_scan tokens_63_2 0 ts_parse_row_1103 = Some (Suc (Suc (Suc (Suc 0))))"
  unfolding ts_parse_row_1103_def by simp

text \<open>Lines 178062 to 178165.\<close>

definition ts_parse_row_1104 :: parse_row where
  "ts_parse_row_1104 =
    [(sym_ERR_assign_func_call, 7530), (sym_ERR_unexpected_this_in_path, 2372),
     (sym_ERR_unexpected_super_in_path, 2372), (sym_ERR_var_access_not_allowed, 3196),
     (sym_ERR_var_config_not_allowed, 3196), (sym_ERR_var_external_not_allowed, 3196),
     (sym_ERR_var_global_not_allowed, 3196), (sym_ERR_method_decl_in_body, 3150),
     (sym_extern_pragma, 7490), (sym_wasm_pragma, 3150), (sym_warn_pragma, 7490),
     (sym_allow_pragma, 3140), (sym_test_pragma, 7490), (sym_once_pragma, 7490),
     (sym_must_call_pragma, 7490), (sym_export_pragma, 7490), (sym_pou_pragma, 7194),
     (sym_direct_variable, 7675), (sym_deref_expression, 2373), (sym_variable, 7599),
     (sym_var_access, 2373), (sym_input_decls, 3196), (sym_output_decls, 3196),
     (sym_in_out_decls, 3196), (sym_var_decls, 3196), (sym_temp_var_decls, 3196),
     (sym_external_var_decls, 3197), (sym_global_var_decls, 2947), (sym_func_body, 8591),
     (sym_method_decl, 3159), (sym__method_decl_variables, 2368), (sym_prog_access_decls, 3043),
     (sym_config_init, 3047), (sym_variable_access, 7530), (sym_func_call, 2961),
     (sym_stmt_list, 8165), (sym__stmt, 2024), (sym_assign, 3150), (sym_if_stmt, 3150),
     (sym_case_stmt, 3150), (sym_for_stmt, 3150), (sym_while_stmt, 3150), (sym_repeat_stmt, 3150),
     (sym_raise_stmt, 3150), (sym_try_stmt, 3150), (sym_ERR_clause_outside_try, 3150),
     (sym_begin_path_expression, 2943), (sym_invocation, 2934), (sym_any_invocation, 2935),
     (sym_this_invocation, 2641), (sym_super_invocation, 2641), (sym_super_body_invocation, 2935),
     (sym_path_expression, 2627), (sym_field_expression, 2373), (sym_index_expression, 2373),
     (sym_ladder_diagram, 8165), (sym_fb_diagram, 8165), (aux_sym_func_decl_repeat1, 7194),
     (aux_sym_method_decl_repeat1, 2368), (aux_sym_stmt_list_repeat1, 2024),
     (aux_sym_ladder_diagram_repeat1, 7628), (aux_sym_fb_diagram_repeat1, 7633),
     (sym_identifier, 298), (aux_sym_ERR_unexpected_this_in_path_token1, 304),
     (aux_sym_ERR_unexpected_super_in_path_token1, 306), (sym_line_comment, 3),
     (anon_sym_LBRACE, 308), (aux_sym_test_pragma_token1, 9), (aux_sym_once_pragma_token1, 11),
     (aux_sym_must_call_pragma_token1, 13), (aux_sym_export_pragma_token1, 15),
     (anon_sym_SEMI, 310), (anon_sym_PERCENT, 312), (aux_sym_input_decls_token1, 2094),
     (aux_sym_output_decls_token1, 2096), (aux_sym_in_out_decls_token1, 318),
     (aux_sym_var_decls_token1, 2098), (aux_sym_temp_var_decls_token1, 322),
     (aux_sym_external_var_decls_token1, 324), (aux_sym_global_var_decls_token1, 326),
     (aux_sym_method_decl_token1, 330), (aux_sym_method_decl_token3, 2668),
     (aux_sym_prog_access_decls_token1, 332), (aux_sym_config_init_token1, 336),
     (aux_sym__stmt_token1, 340), (aux_sym__stmt_token2, 340), (aux_sym__stmt_token3, 340),
     (aux_sym_if_stmt_token1, 342), (aux_sym_case_stmt_token1, 344), (aux_sym_for_stmt_token1, 346),
     (aux_sym_while_stmt_token1, 348), (aux_sym_repeat_stmt_token1, 350),
     (aux_sym_raise_stmt_token1, 352), (aux_sym_try_stmt_token1, 354),
     (aux_sym_try_stmt_token2, 356), (aux_sym_catch_clause_token1, 356),
     (aux_sym_finally_clause_token1, 356), (sym_ld_rung, 2102), (sym_fbd_network, 2104),
     (sym_c_style_comment, 3), (sym_pascal_style_comment, 3), (sym_pragma, 3)]"

lemma ts_parse_row_1104_scan: "row_scan tokens_63_2 0 ts_parse_row_1104 = Some (Suc (Suc (Suc (Suc 0))))"
  unfolding ts_parse_row_1104_def by simp

text \<open>Lines 178166 to 178269.\<close>

definition ts_parse_row_1105 :: parse_row where
  "ts_parse_row_1105 =
    [(sym_ERR_assign_func_call, 7530), (sym_ERR_unexpected_this_in_path, 2372),
     (sym_ERR_unexpected_super_in_path, 2372), (sym_ERR_var_access_not_allowed, 3196),
     (sym_ERR_var_config_not_allowed, 3196), (sym_ERR_var_external_not_allowed, 3196),
     (sym_ERR_var_global_not_allowed, 3196), (sym_ERR_method_decl_in_body, 3150),
     (sym_extern_pragma, 7490), (sym_wasm_pragma, 3150), (sym_warn_pragma, 7490),
     (sym_allow_pragma, 3140), (sym_test_pragma, 7490), (sym_once_pragma, 7490),
     (sym_must_call_pragma, 7490), (sym_export_pragma, 7490), (sym_pou_pragma, 7194),
     (sym_direct_variable, 7675), (sym_deref_expression, 2373), (sym_variable, 7599),
     (sym_var_access, 2373), (sym_input_decls, 3196), (sym_output_decls, 3196),
     (sym_in_out_decls, 3196), (sym_var_decls, 3196), (sym_temp_var_decls, 3196),
     (sym_external_var_decls, 3197), (sym_global_var_decls, 2947), (sym_func_body, 8602),
     (sym_method_decl, 3159), (sym__method_decl_variables, 2368), (sym_prog_access_decls, 3043),
     (sym_config_init, 3047), (sym_variable_access, 7530), (sym_func_call, 2961),
     (sym_stmt_list, 8165), (sym__stmt, 2024), (sym_assign, 3150), (sym_if_stmt, 3150),
     (sym_case_stmt, 3150), (sym_for_stmt, 3150), (sym_while_stmt, 3150), (sym_repeat_stmt, 3150),
     (sym_raise_stmt, 3150), (sym_try_stmt, 3150), (sym_ERR_clause_outside_try, 3150),
     (sym_begin_path_expression, 2943), (sym_invocation, 2934), (sym_any_invocation, 2935),
     (sym_this_invocation, 2641), (sym_super_invocation, 2641), (sym_super_body_invocation, 2935),
     (sym_path_expression, 2627), (sym_field_expression, 2373), (sym_index_expression, 2373),
     (sym_ladder_diagram, 8165), (sym_fb_diagram, 8165), (aux_sym_func_decl_repeat1, 7194),
     (aux_sym_method_decl_repeat1, 2368), (aux_sym_stmt_list_repeat1, 2024),
     (aux_sym_ladder_diagram_repeat1, 7628), (aux_sym_fb_diagram_repeat1, 7633),
     (sym_identifier, 298), (aux_sym_ERR_unexpected_this_in_path_token1, 304),
     (aux_sym_ERR_unexpected_super_in_path_token1, 306), (sym_line_comment, 3),
     (anon_sym_LBRACE, 308), (aux_sym_test_pragma_token1, 9), (aux_sym_once_pragma_token1, 11),
     (aux_sym_must_call_pragma_token1, 13), (aux_sym_export_pragma_token1, 15),
     (anon_sym_SEMI, 310), (anon_sym_PERCENT, 312), (aux_sym_input_decls_token1, 2094),
     (aux_sym_output_decls_token1, 2096), (aux_sym_in_out_decls_token1, 318),
     (aux_sym_var_decls_token1, 2098), (aux_sym_temp_var_decls_token1, 322),
     (aux_sym_external_var_decls_token1, 324), (aux_sym_global_var_decls_token1, 326),
     (aux_sym_method_decl_token1, 330), (aux_sym_method_decl_token3, 2670),
     (aux_sym_prog_access_decls_token1, 332), (aux_sym_config_init_token1, 336),
     (aux_sym__stmt_token1, 340), (aux_sym__stmt_token2, 340), (aux_sym__stmt_token3, 340),
     (aux_sym_if_stmt_token1, 342), (aux_sym_case_stmt_token1, 344), (aux_sym_for_stmt_token1, 346),
     (aux_sym_while_stmt_token1, 348), (aux_sym_repeat_stmt_token1, 350),
     (aux_sym_raise_stmt_token1, 352), (aux_sym_try_stmt_token1, 354),
     (aux_sym_try_stmt_token2, 356), (aux_sym_catch_clause_token1, 356),
     (aux_sym_finally_clause_token1, 356), (sym_ld_rung, 2102), (sym_fbd_network, 2104),
     (sym_c_style_comment, 3), (sym_pascal_style_comment, 3), (sym_pragma, 3)]"

lemma ts_parse_row_1105_scan: "row_scan tokens_63_2 0 ts_parse_row_1105 = Some (Suc (Suc (Suc (Suc 0))))"
  unfolding ts_parse_row_1105_def by simp

text \<open>Lines 178270 to 178373.\<close>

definition ts_parse_row_1106 :: parse_row where
  "ts_parse_row_1106 =
    [(sym_ERR_assign_func_call, 7530), (sym_ERR_unexpected_this_in_path, 2372),
     (sym_ERR_unexpected_super_in_path, 2372), (sym_ERR_var_access_not_allowed, 3196),
     (sym_ERR_var_config_not_allowed, 3196), (sym_ERR_var_external_not_allowed, 3196),
     (sym_ERR_var_global_not_allowed, 3196), (sym_ERR_method_decl_in_body, 3150),
     (sym_extern_pragma, 7490), (sym_wasm_pragma, 3150), (sym_warn_pragma, 7490),
     (sym_allow_pragma, 3140), (sym_test_pragma, 7490), (sym_once_pragma, 7490),
     (sym_must_call_pragma, 7490), (sym_export_pragma, 7490), (sym_pou_pragma, 7194),
     (sym_direct_variable, 7675), (sym_deref_expression, 2373), (sym_variable, 7599),
     (sym_var_access, 2373), (sym_input_decls, 3196), (sym_output_decls, 3196),
     (sym_in_out_decls, 3196), (sym_var_decls, 3196), (sym_temp_var_decls, 3196),
     (sym_external_var_decls, 3197), (sym_global_var_decls, 2947), (sym_func_body, 8608),
     (sym_method_decl, 3159), (sym__method_decl_variables, 969), (sym_prog_access_decls, 3043),
     (sym_config_init, 3047), (sym_variable_access, 7530), (sym_func_call, 2961),
     (sym_stmt_list, 8165), (sym__stmt, 2024), (sym_assign, 3150), (sym_if_stmt, 3150),
     (sym_case_stmt, 3150), (sym_for_stmt, 3150), (sym_while_stmt, 3150), (sym_repeat_stmt, 3150),
     (sym_raise_stmt, 3150), (sym_try_stmt, 3150), (sym_ERR_clause_outside_try, 3150),
     (sym_begin_path_expression, 2943), (sym_invocation, 2934), (sym_any_invocation, 2935),
     (sym_this_invocation, 2641), (sym_super_invocation, 2641), (sym_super_body_invocation, 2935),
     (sym_path_expression, 2627), (sym_field_expression, 2373), (sym_index_expression, 2373),
     (sym_ladder_diagram, 8165), (sym_fb_diagram, 8165), (aux_sym_func_decl_repeat1, 7194),
     (aux_sym_method_decl_repeat1, 969), (aux_sym_stmt_list_repeat1, 2024),
     (aux_sym_ladder_diagram_repeat1, 7628), (aux_sym_fb_diagram_repeat1, 7633),
     (sym_identifier, 298), (aux_sym_ERR_unexpected_this_in_path_token1, 304),
     (aux_sym_ERR_unexpected_super_in_path_token1, 306), (sym_line_comment, 3),
     (anon_sym_LBRACE, 308), (aux_sym_test_pragma_token1, 9), (aux_sym_once_pragma_token1, 11),
     (aux_sym_must_call_pragma_token1, 13), (aux_sym_export_pragma_token1, 15),
     (anon_sym_SEMI, 310), (anon_sym_PERCENT, 312), (aux_sym_input_decls_token1, 2094),
     (aux_sym_output_decls_token1, 2096), (aux_sym_in_out_decls_token1, 318),
     (aux_sym_var_decls_token1, 2098), (aux_sym_temp_var_decls_token1, 322),
     (aux_sym_external_var_decls_token1, 324), (aux_sym_global_var_decls_token1, 326),
     (aux_sym_method_decl_token1, 330), (aux_sym_method_decl_token3, 2672),
     (aux_sym_prog_access_decls_token1, 332), (aux_sym_config_init_token1, 336),
     (aux_sym__stmt_token1, 340), (aux_sym__stmt_token2, 340), (aux_sym__stmt_token3, 340),
     (aux_sym_if_stmt_token1, 342), (aux_sym_case_stmt_token1, 344), (aux_sym_for_stmt_token1, 346),
     (aux_sym_while_stmt_token1, 348), (aux_sym_repeat_stmt_token1, 350),
     (aux_sym_raise_stmt_token1, 352), (aux_sym_try_stmt_token1, 354),
     (aux_sym_try_stmt_token2, 356), (aux_sym_catch_clause_token1, 356),
     (aux_sym_finally_clause_token1, 356), (sym_ld_rung, 2102), (sym_fbd_network, 2104),
     (sym_c_style_comment, 3), (sym_pascal_style_comment, 3), (sym_pragma, 3)]"

lemma ts_parse_row_1106_scan: "row_scan tokens_63_2 0 ts_parse_row_1106 = Some (Suc (Suc (Suc (Suc 0))))"
  unfolding ts_parse_row_1106_def by simp

text \<open>Lines 178374 to 178477.\<close>

definition ts_parse_row_1107 :: parse_row where
  "ts_parse_row_1107 =
    [(sym_ERR_assign_func_call, 7530), (sym_ERR_unexpected_this_in_path, 2372),
     (sym_ERR_unexpected_super_in_path, 2372), (sym_ERR_var_access_not_allowed, 3266),
     (sym_ERR_var_config_not_allowed, 3266), (sym_ERR_var_external_not_allowed, 3266),
     (sym_ERR_var_global_not_allowed, 3266), (sym_ERR_method_decl_in_body, 3150),
     (sym_extern_pragma, 7490), (sym_wasm_pragma, 3150), (sym_warn_pragma, 7490),
     (sym_allow_pragma, 3140), (sym_test_pragma, 7490), (sym_once_pragma, 7490),
     (sym_must_call_pragma, 7490), (sym_export_pragma, 7490), (sym_pou_pragma, 7194),
     (sym_direct_variable, 7675), (sym_deref_expression, 2373), (sym_variable, 7599),
     (sym_var_access, 2373), (sym_input_decls, 3266), (sym_output_decls, 3266),
     (sym_in_out_decls, 3266), (sym_var_decls, 3266), (sym_temp_var_decls, 3266),
     (sym_external_var_decls, 3248), (sym_global_var_decls, 2947), (sym__func_variables, 2367),
     (sym_func_body, 9980), (sym_method_decl, 3159), (sym_prog_access_decls, 3043),
     (sym_config_init, 3047), (sym_variable_access, 7530), (sym_func_call, 2961),
     (sym_stmt_list, 8165), (sym__stmt, 2024), (sym_assign, 3150), (sym_if_stmt, 3150),
     (sym_case_stmt, 3150), (sym_for_stmt, 3150), (sym_while_stmt, 3150), (sym_repeat_stmt, 3150),
     (sym_raise_stmt, 3150), (sym_try_stmt, 3150), (sym_ERR_clause_outside_try, 3150),
     (sym_begin_path_expression, 2943), (sym_invocation, 2934), (sym_any_invocation, 2935),
     (sym_this_invocation, 2641), (sym_super_invocation, 2641), (sym_super_body_invocation, 2935),
     (sym_path_expression, 2627), (sym_field_expression, 2373), (sym_index_expression, 2373),
     (sym_ladder_diagram, 8165), (sym_fb_diagram, 8165), (aux_sym_func_decl_repeat1, 7194),
     (aux_sym_func_decl_repeat3, 2367), (aux_sym_stmt_list_repeat1, 2024),
     (aux_sym_ladder_diagram_repeat1, 7628), (aux_sym_fb_diagram_repeat1, 7633),
     (sym_identifier, 298), (aux_sym_ERR_unexpected_this_in_path_token1, 304),
     (aux_sym_ERR_unexpected_super_in_path_token1, 306), (sym_line_comment, 3),
     (anon_sym_LBRACE, 308), (aux_sym_test_pragma_token1, 9), (aux_sym_once_pragma_token1, 11),
     (aux_sym_must_call_pragma_token1, 13), (aux_sym_export_pragma_token1, 15),
     (anon_sym_SEMI, 310), (anon_sym_PERCENT, 312), (aux_sym_input_decls_token1, 2094),
     (aux_sym_output_decls_token1, 2096), (aux_sym_in_out_decls_token1, 318),
     (aux_sym_var_decls_token1, 2098), (aux_sym_temp_var_decls_token1, 322),
     (aux_sym_external_var_decls_token1, 324), (aux_sym_global_var_decls_token1, 326),
     (aux_sym_func_decl_token2, 2674), (aux_sym_method_decl_token1, 330),
     (aux_sym_prog_access_decls_token1, 332), (aux_sym_config_init_token1, 336),
     (aux_sym__stmt_token1, 340), (aux_sym__stmt_token2, 340), (aux_sym__stmt_token3, 340),
     (aux_sym_if_stmt_token1, 342), (aux_sym_case_stmt_token1, 344), (aux_sym_for_stmt_token1, 346),
     (aux_sym_while_stmt_token1, 348), (aux_sym_repeat_stmt_token1, 350),
     (aux_sym_raise_stmt_token1, 352), (aux_sym_try_stmt_token1, 354),
     (aux_sym_try_stmt_token2, 356), (aux_sym_catch_clause_token1, 356),
     (aux_sym_finally_clause_token1, 356), (sym_ld_rung, 2102), (sym_fbd_network, 2104),
     (sym_c_style_comment, 3), (sym_pascal_style_comment, 3), (sym_pragma, 3)]"

lemma ts_parse_row_1107_scan: "row_scan tokens_63_2 0 ts_parse_row_1107 = Some (Suc (Suc (Suc (Suc 0))))"
  unfolding ts_parse_row_1107_def by simp

text \<open>Lines 178478 to 178581.\<close>

definition ts_parse_row_1108 :: parse_row where
  "ts_parse_row_1108 =
    [(sym_ERR_assign_func_call, 7530), (sym_ERR_unexpected_this_in_path, 2372),
     (sym_ERR_unexpected_super_in_path, 2372), (sym_ERR_var_access_not_allowed, 3196),
     (sym_ERR_var_config_not_allowed, 3196), (sym_ERR_var_external_not_allowed, 3196),
     (sym_ERR_var_global_not_allowed, 3196), (sym_ERR_method_decl_in_body, 3150),
     (sym_extern_pragma, 7490), (sym_wasm_pragma, 3150), (sym_warn_pragma, 7490),
     (sym_allow_pragma, 3140), (sym_test_pragma, 7490), (sym_once_pragma, 7490),
     (sym_must_call_pragma, 7490), (sym_export_pragma, 7490), (sym_pou_pragma, 7194),
     (sym_direct_variable, 7675), (sym_deref_expression, 2373), (sym_variable, 7599),
     (sym_var_access, 2373), (sym_input_decls, 3196), (sym_output_decls, 3196),
     (sym_in_out_decls, 3196), (sym_var_decls, 3196), (sym_temp_var_decls, 3196),
     (sym_external_var_decls, 3197), (sym_global_var_decls, 2947), (sym_func_body, 10178),
     (sym_method_decl, 3159), (sym__method_decl_variables, 1004), (sym_prog_access_decls, 3043),
     (sym_config_init, 3047), (sym_variable_access, 7530), (sym_func_call, 2961),
     (sym_stmt_list, 8165), (sym__stmt, 2024), (sym_assign, 3150), (sym_if_stmt, 3150),
     (sym_case_stmt, 3150), (sym_for_stmt, 3150), (sym_while_stmt, 3150), (sym_repeat_stmt, 3150),
     (sym_raise_stmt, 3150), (sym_try_stmt, 3150), (sym_ERR_clause_outside_try, 3150),
     (sym_begin_path_expression, 2943), (sym_invocation, 2934), (sym_any_invocation, 2935),
     (sym_this_invocation, 2641), (sym_super_invocation, 2641), (sym_super_body_invocation, 2935),
     (sym_path_expression, 2627), (sym_field_expression, 2373), (sym_index_expression, 2373),
     (sym_ladder_diagram, 8165), (sym_fb_diagram, 8165), (aux_sym_func_decl_repeat1, 7194),
     (aux_sym_method_decl_repeat1, 1004), (aux_sym_stmt_list_repeat1, 2024),
     (aux_sym_ladder_diagram_repeat1, 7628), (aux_sym_fb_diagram_repeat1, 7633),
     (sym_identifier, 298), (aux_sym_ERR_unexpected_this_in_path_token1, 304),
     (aux_sym_ERR_unexpected_super_in_path_token1, 306), (sym_line_comment, 3),
     (anon_sym_LBRACE, 308), (aux_sym_test_pragma_token1, 9), (aux_sym_once_pragma_token1, 11),
     (aux_sym_must_call_pragma_token1, 13), (aux_sym_export_pragma_token1, 15),
     (anon_sym_SEMI, 310), (anon_sym_PERCENT, 312), (aux_sym_input_decls_token1, 2094),
     (aux_sym_output_decls_token1, 2096), (aux_sym_in_out_decls_token1, 318),
     (aux_sym_var_decls_token1, 2098), (aux_sym_temp_var_decls_token1, 322),
     (aux_sym_external_var_decls_token1, 324), (aux_sym_global_var_decls_token1, 326),
     (aux_sym_method_decl_token1, 330), (aux_sym_method_decl_token3, 2676),
     (aux_sym_prog_access_decls_token1, 332), (aux_sym_config_init_token1, 336),
     (aux_sym__stmt_token1, 340), (aux_sym__stmt_token2, 340), (aux_sym__stmt_token3, 340),
     (aux_sym_if_stmt_token1, 342), (aux_sym_case_stmt_token1, 344), (aux_sym_for_stmt_token1, 346),
     (aux_sym_while_stmt_token1, 348), (aux_sym_repeat_stmt_token1, 350),
     (aux_sym_raise_stmt_token1, 352), (aux_sym_try_stmt_token1, 354),
     (aux_sym_try_stmt_token2, 356), (aux_sym_catch_clause_token1, 356),
     (aux_sym_finally_clause_token1, 356), (sym_ld_rung, 2102), (sym_fbd_network, 2104),
     (sym_c_style_comment, 3), (sym_pascal_style_comment, 3), (sym_pragma, 3)]"

lemma ts_parse_row_1108_scan: "row_scan tokens_63_2 0 ts_parse_row_1108 = Some (Suc (Suc (Suc (Suc 0))))"
  unfolding ts_parse_row_1108_def by simp

text \<open>Lines 178582 to 178677.\<close>

definition ts_parse_row_1109 :: parse_row where
  "ts_parse_row_1109 =
    [(aux_sym_deref_expression_repeat1, 1112), (sym_identifier, 2678), (anon_sym_EQ, 2680),
     (aux_sym_ERR_unexpected_this_in_path_token1, 2678),
     (aux_sym_ERR_unexpected_super_in_path_token1, 2678), (sym_line_comment, 3),
     (anon_sym_LBRACE, 2678), (anon_sym_LPAREN, 2680), (aux_sym_test_pragma_token1, 2680),
     (aux_sym_once_pragma_token1, 2680), (aux_sym_must_call_pragma_token1, 2680),
     (aux_sym_export_pragma_token1, 2680), (anon_sym_POUND, 2680), (sym_unsigned_int, 2678),
     (sym__explicit_signed_int, 2678), (sym_binary_int, 2680), (sym_octal_int, 2680),
     (sym_hex_int, 2680), (sym__explicit_signed_real, 2680), (sym_real_value, 2680),
     (aux_sym_bool_literal_with_string_token1, 2680),
     (aux_sym_bool_literal_with_string_token2, 2678),
     (aux_sym_bool_literal_with_string_token3, 2678), (sym_s_byte_char_str, 2680),
     (sym_d_byte_char_str, 2680), (aux_sym_time_token1, 2680), (anon_sym_PLUS, 2678),
     (anon_sym_DASH, 2678), (aux_sym_ltime_token1, 2680), (aux_sym_tod_token1, 2680),
     (aux_sym_ltod_token1, 2680), (aux_sym_short_date_token1, 2680),
     (aux_sym_long_date_token1, 2680), (aux_sym_short_date_and_time_token1, 2680),
     (aux_sym_long_date_and_time_token1, 2680), (aux_sym_sign_int_type_name_token1, 2678),
     (aux_sym_sign_int_type_name_token2, 2678), (aux_sym_sign_int_type_name_token3, 2678),
     (aux_sym_sign_int_type_name_token4, 2678), (aux_sym_unsign_int_type_name_token1, 2678),
     (aux_sym_unsign_int_type_name_token2, 2678), (aux_sym_unsign_int_type_name_token3, 2678),
     (aux_sym_unsign_int_type_name_token4, 2678), (aux_sym_real_type_name_token1, 2678),
     (aux_sym_real_type_name_token2, 2678), (aux_sym_string_name_token1, 2678),
     (anon_sym_LBRACK, 2682), (aux_sym_char_name_token1, 2678),
     (aux_sym_multibits_type_name_token1, 2678), (aux_sym_multibits_type_name_token2, 2678),
     (aux_sym_multibits_type_name_token3, 2678), (aux_sym_multibits_type_name_token4, 2678),
     (anon_sym_SEMI, 2680), (anon_sym_PERCENT, 2680), (anon_sym_STAR, 2678), (anon_sym_DOT, 2684),
     (aux_sym_ref_value_token1, 2678), (aux_sym_ref_addr_token1, 2678), (anon_sym_CARET, 2687),
     (anon_sym_DOT_DOT_DOT, 2680), (aux_sym_method_decl_token1, 2678), (anon_sym_SLASH, 2678),
     (anon_sym_STAR_STAR, 2680), (anon_sym_AMP, 2680), (anon_sym_LT_GT, 2680), (anon_sym_LT, 2678),
     (anon_sym_GT, 2678), (anon_sym_LT_EQ, 2680), (anon_sym_GT_EQ, 2680),
     (aux_sym_or_operator_token1, 2678), (aux_sym_xor_operator_token1, 2678),
     (aux_sym_and_operator_token1, 2678), (aux_sym_mult_token1, 2678), (aux_sym_unary_token1, 2678),
     (aux_sym__stmt_token1, 2678), (aux_sym__stmt_token2, 2678), (aux_sym__stmt_token3, 2678),
     (aux_sym_if_stmt_token1, 2678), (aux_sym_if_stmt_token3, 2678),
     (aux_sym_case_stmt_token1, 2678), (aux_sym_case_stmt_token2, 2678),
     (aux_sym_for_stmt_token1, 2678), (aux_sym_while_stmt_token1, 2678),
     (aux_sym_repeat_stmt_token1, 2678), (aux_sym_raise_stmt_token1, 2678),
     (aux_sym_try_stmt_token1, 2678), (aux_sym_try_stmt_token2, 2678),
     (aux_sym_catch_clause_token1, 2678), (aux_sym_finally_clause_token1, 2678),
     (sym_c_style_comment, 3), (sym_pascal_style_comment, 3), (sym_pragma, 3),
     (sym__minus_before_base, 2680), (sym__plus_before_base, 2680)]"

lemma ts_parse_row_1109_scan: "row_scan tokens_2_1 0 ts_parse_row_1109 = Some (Suc (Suc (Suc (Suc (Suc (Suc 0))))))"
  unfolding ts_parse_row_1109_def by simp

text \<open>Lines 178678 to 178773.\<close>

definition ts_parse_row_1110 :: parse_row where
  "ts_parse_row_1110 =
    [(sym_identifier, 2689), (anon_sym_EQ, 2691),
     (aux_sym_ERR_unexpected_this_in_path_token1, 2689),
     (aux_sym_ERR_unexpected_super_in_path_token1, 2689), (sym_line_comment, 3),
     (anon_sym_LBRACE, 2689), (anon_sym_LPAREN, 2689), (aux_sym_test_pragma_token1, 2691),
     (aux_sym_once_pragma_token1, 2691), (aux_sym_must_call_pragma_token1, 2691),
     (aux_sym_export_pragma_token1, 2691), (anon_sym_POUND, 2691), (sym_unsigned_int, 2689),
     (sym__explicit_signed_int, 2689), (sym_binary_int, 2691), (sym_octal_int, 2691),
     (sym_hex_int, 2691), (sym__explicit_signed_real, 2691), (sym_real_value, 2691),
     (aux_sym_bool_literal_with_string_token1, 2691),
     (aux_sym_bool_literal_with_string_token2, 2689),
     (aux_sym_bool_literal_with_string_token3, 2689), (sym_s_byte_char_str, 2691),
     (sym_d_byte_char_str, 2691), (aux_sym_time_token1, 2691), (anon_sym_PLUS, 2689),
     (anon_sym_DASH, 2689), (aux_sym_ltime_token1, 2691), (aux_sym_tod_token1, 2691),
     (aux_sym_ltod_token1, 2691), (aux_sym_short_date_token1, 2691),
     (aux_sym_long_date_token1, 2691), (aux_sym_short_date_and_time_token1, 2691),
     (aux_sym_long_date_and_time_token1, 2691), (aux_sym_sign_int_type_name_token1, 2689),
     (aux_sym_sign_int_type_name_token2, 2689), (aux_sym_sign_int_type_name_token3, 2689),
     (aux_sym_sign_int_type_name_token4, 2689), (aux_sym_unsign_int_type_name_token1, 2689),
     (aux_sym_unsign_int_type_name_token2, 2689), (aux_sym_unsign_int_type_name_token3, 2689),
     (aux_sym_unsign_int_type_name_token4, 2689), (aux_sym_real_type_name_token1, 2689),
     (aux_sym_real_type_name_token2, 2689), (aux_sym_string_name_token1, 2689),
     (anon_sym_LBRACK, 2693), (aux_sym_char_name_token1, 2689),
     (aux_sym_multibits_type_name_token1, 2689), (aux_sym_multibits_type_name_token2, 2689),
     (aux_sym_multibits_type_name_token3, 2689), (aux_sym_multibits_type_name_token4, 2689),
     (anon_sym_SEMI, 2691), (anon_sym_PERCENT, 2691), (anon_sym_STAR, 2689), (anon_sym_DOT, 2689),
     (aux_sym_ref_value_token1, 2689), (aux_sym_ref_addr_token1, 2689), (anon_sym_CARET, 2691),
     (anon_sym_DOT_DOT_DOT, 2691), (aux_sym_method_decl_token1, 2689), (anon_sym_SLASH, 2689),
     (anon_sym_STAR_STAR, 2691), (anon_sym_AMP, 2691), (anon_sym_LT_GT, 2691), (anon_sym_LT, 2689),
     (anon_sym_GT, 2689), (anon_sym_LT_EQ, 2691), (anon_sym_GT_EQ, 2691),
     (aux_sym_or_operator_token1, 2689), (aux_sym_xor_operator_token1, 2689),
     (aux_sym_and_operator_token1, 2689), (aux_sym_mult_token1, 2689), (aux_sym_unary_token1, 2689),
     (aux_sym__stmt_token1, 2689), (aux_sym__stmt_token2, 2689), (aux_sym__stmt_token3, 2689),
     (aux_sym_if_stmt_token1, 2689), (aux_sym_if_stmt_token3, 2689),
     (aux_sym_case_stmt_token1, 2689), (aux_sym_case_stmt_token2, 2689),
     (aux_sym_for_stmt_token1, 2689), (aux_sym_while_stmt_token1, 2689),
     (aux_sym_repeat_stmt_token1, 2689), (aux_sym_raise_stmt_token1, 2689),
     (aux_sym_try_stmt_token1, 2689), (aux_sym_try_stmt_token2, 2689),
     (aux_sym_catch_clause_token1, 2689), (aux_sym_finally_clause_token1, 2689),
     (anon_sym_LPAREN_RPAREN, 2695), (sym_c_style_comment, 3), (sym_pascal_style_comment, 3),
     (sym_pragma, 3), (sym__minus_before_base, 2691), (sym__plus_before_base, 2691)]"

lemma ts_parse_row_1110_scan: "row_scan tokens_1_1 0 ts_parse_row_1110 = Some (Suc (Suc (Suc (Suc (Suc (Suc 0))))))"
  unfolding ts_parse_row_1110_def by simp

text \<open>Lines 178774 to 178869.\<close>

definition ts_parse_row_1111 :: parse_row where
  "ts_parse_row_1111 =
    [(aux_sym_deref_expression_repeat1, 1111), (sym_identifier, 2697), (anon_sym_EQ, 2699),
     (aux_sym_ERR_unexpected_this_in_path_token1, 2697),
     (aux_sym_ERR_unexpected_super_in_path_token1, 2697), (sym_line_comment, 3),
     (anon_sym_LBRACE, 2697), (anon_sym_LPAREN, 2699), (aux_sym_test_pragma_token1, 2699),
     (aux_sym_once_pragma_token1, 2699), (aux_sym_must_call_pragma_token1, 2699),
     (aux_sym_export_pragma_token1, 2699), (anon_sym_POUND, 2699), (sym_unsigned_int, 2697),
     (sym__explicit_signed_int, 2697), (sym_binary_int, 2699), (sym_octal_int, 2699),
     (sym_hex_int, 2699), (sym__explicit_signed_real, 2699), (sym_real_value, 2699),
     (aux_sym_bool_literal_with_string_token1, 2699),
     (aux_sym_bool_literal_with_string_token2, 2697),
     (aux_sym_bool_literal_with_string_token3, 2697), (sym_s_byte_char_str, 2699),
     (sym_d_byte_char_str, 2699), (aux_sym_time_token1, 2699), (anon_sym_PLUS, 2697),
     (anon_sym_DASH, 2697), (aux_sym_ltime_token1, 2699), (aux_sym_tod_token1, 2699),
     (aux_sym_ltod_token1, 2699), (aux_sym_short_date_token1, 2699),
     (aux_sym_long_date_token1, 2699), (aux_sym_short_date_and_time_token1, 2699),
     (aux_sym_long_date_and_time_token1, 2699), (aux_sym_sign_int_type_name_token1, 2697),
     (aux_sym_sign_int_type_name_token2, 2697), (aux_sym_sign_int_type_name_token3, 2697),
     (aux_sym_sign_int_type_name_token4, 2697), (aux_sym_unsign_int_type_name_token1, 2697),
     (aux_sym_unsign_int_type_name_token2, 2697), (aux_sym_unsign_int_type_name_token3, 2697),
     (aux_sym_unsign_int_type_name_token4, 2697), (aux_sym_real_type_name_token1, 2697),
     (aux_sym_real_type_name_token2, 2697), (aux_sym_string_name_token1, 2697),
     (anon_sym_LBRACK, 2699), (aux_sym_char_name_token1, 2697),
     (aux_sym_multibits_type_name_token1, 2697), (aux_sym_multibits_type_name_token2, 2697),
     (aux_sym_multibits_type_name_token3, 2697), (aux_sym_multibits_type_name_token4, 2697),
     (anon_sym_SEMI, 2699), (anon_sym_PERCENT, 2699), (anon_sym_STAR, 2697), (anon_sym_DOT, 2697),
     (aux_sym_ref_value_token1, 2697), (aux_sym_ref_addr_token1, 2697), (anon_sym_CARET, 2701),
     (anon_sym_DOT_DOT_DOT, 2699), (aux_sym_method_decl_token1, 2697), (anon_sym_SLASH, 2697),
     (anon_sym_STAR_STAR, 2699), (anon_sym_AMP, 2699), (anon_sym_LT_GT, 2699), (anon_sym_LT, 2697),
     (anon_sym_GT, 2697), (anon_sym_LT_EQ, 2699), (anon_sym_GT_EQ, 2699),
     (aux_sym_or_operator_token1, 2697), (aux_sym_xor_operator_token1, 2697),
     (aux_sym_and_operator_token1, 2697), (aux_sym_mult_token1, 2697), (aux_sym_unary_token1, 2697),
     (aux_sym__stmt_token1, 2697), (aux_sym__stmt_token2, 2697), (aux_sym__stmt_token3, 2697),
     (aux_sym_if_stmt_token1, 2697), (aux_sym_if_stmt_token3, 2697),
     (aux_sym_case_stmt_token1, 2697), (aux_sym_case_stmt_token2, 2697),
     (aux_sym_for_stmt_token1, 2697), (aux_sym_while_stmt_token1, 2697),
     (aux_sym_repeat_stmt_token1, 2697), (aux_sym_raise_stmt_token1, 2697),
     (aux_sym_try_stmt_token1, 2697), (aux_sym_try_stmt_token2, 2697),
     (aux_sym_catch_clause_token1, 2697), (aux_sym_finally_clause_token1, 2697),
     (sym_c_style_comment, 3), (sym_pascal_style_comment, 3), (sym_pragma, 3),
     (sym__minus_before_base, 2699), (sym__plus_before_base, 2699)]"

lemma ts_parse_row_1111_scan: "row_scan tokens_2_1 0 ts_parse_row_1111 = Some (Suc (Suc (Suc (Suc (Suc (Suc 0))))))"
  unfolding ts_parse_row_1111_def by simp

text \<open>Lines 178870 to 178965.\<close>

definition ts_parse_row_1112 :: parse_row where
  "ts_parse_row_1112 =
    [(aux_sym_deref_expression_repeat1, 1111), (sym_identifier, 2704), (anon_sym_EQ, 2706),
     (aux_sym_ERR_unexpected_this_in_path_token1, 2704),
     (aux_sym_ERR_unexpected_super_in_path_token1, 2704), (sym_line_comment, 3),
     (anon_sym_LBRACE, 2704), (anon_sym_LPAREN, 2706), (aux_sym_test_pragma_token1, 2706),
     (aux_sym_once_pragma_token1, 2706), (aux_sym_must_call_pragma_token1, 2706),
     (aux_sym_export_pragma_token1, 2706), (anon_sym_POUND, 2706), (sym_unsigned_int, 2704),
     (sym__explicit_signed_int, 2704), (sym_binary_int, 2706), (sym_octal_int, 2706),
     (sym_hex_int, 2706), (sym__explicit_signed_real, 2706), (sym_real_value, 2706),
     (aux_sym_bool_literal_with_string_token1, 2706),
     (aux_sym_bool_literal_with_string_token2, 2704),
     (aux_sym_bool_literal_with_string_token3, 2704), (sym_s_byte_char_str, 2706),
     (sym_d_byte_char_str, 2706), (aux_sym_time_token1, 2706), (anon_sym_PLUS, 2704),
     (anon_sym_DASH, 2704), (aux_sym_ltime_token1, 2706), (aux_sym_tod_token1, 2706),
     (aux_sym_ltod_token1, 2706), (aux_sym_short_date_token1, 2706),
     (aux_sym_long_date_token1, 2706), (aux_sym_short_date_and_time_token1, 2706),
     (aux_sym_long_date_and_time_token1, 2706), (aux_sym_sign_int_type_name_token1, 2704),
     (aux_sym_sign_int_type_name_token2, 2704), (aux_sym_sign_int_type_name_token3, 2704),
     (aux_sym_sign_int_type_name_token4, 2704), (aux_sym_unsign_int_type_name_token1, 2704),
     (aux_sym_unsign_int_type_name_token2, 2704), (aux_sym_unsign_int_type_name_token3, 2704),
     (aux_sym_unsign_int_type_name_token4, 2704), (aux_sym_real_type_name_token1, 2704),
     (aux_sym_real_type_name_token2, 2704), (aux_sym_string_name_token1, 2704),
     (anon_sym_LBRACK, 2706), (aux_sym_char_name_token1, 2704),
     (aux_sym_multibits_type_name_token1, 2704), (aux_sym_multibits_type_name_token2, 2704),
     (aux_sym_multibits_type_name_token3, 2704), (aux_sym_multibits_type_name_token4, 2704),
     (anon_sym_SEMI, 2706), (anon_sym_PERCENT, 2706), (anon_sym_STAR, 2704), (anon_sym_DOT, 2704),
     (aux_sym_ref_value_token1, 2704), (aux_sym_ref_addr_token1, 2704), (anon_sym_CARET, 2706),
     (anon_sym_DOT_DOT_DOT, 2706), (aux_sym_method_decl_token1, 2704), (anon_sym_SLASH, 2704),
     (anon_sym_STAR_STAR, 2706), (anon_sym_AMP, 2706), (anon_sym_LT_GT, 2706), (anon_sym_LT, 2704),
     (anon_sym_GT, 2704), (anon_sym_LT_EQ, 2706), (anon_sym_GT_EQ, 2706),
     (aux_sym_or_operator_token1, 2704), (aux_sym_xor_operator_token1, 2704),
     (aux_sym_and_operator_token1, 2704), (aux_sym_mult_token1, 2704), (aux_sym_unary_token1, 2704),
     (aux_sym__stmt_token1, 2704), (aux_sym__stmt_token2, 2704), (aux_sym__stmt_token3, 2704),
     (aux_sym_if_stmt_token1, 2704), (aux_sym_if_stmt_token3, 2704),
     (aux_sym_case_stmt_token1, 2704), (aux_sym_case_stmt_token2, 2704),
     (aux_sym_for_stmt_token1, 2704), (aux_sym_while_stmt_token1, 2704),
     (aux_sym_repeat_stmt_token1, 2704), (aux_sym_raise_stmt_token1, 2704),
     (aux_sym_try_stmt_token1, 2704), (aux_sym_try_stmt_token2, 2704),
     (aux_sym_catch_clause_token1, 2704), (aux_sym_finally_clause_token1, 2704),
     (sym_c_style_comment, 3), (sym_pascal_style_comment, 3), (sym_pragma, 3),
     (sym__minus_before_base, 2706), (sym__plus_before_base, 2706)]"

lemma ts_parse_row_1112_scan: "row_scan tokens_2_1 0 ts_parse_row_1112 = Some (Suc (Suc (Suc (Suc (Suc (Suc 0))))))"
  unfolding ts_parse_row_1112_def by simp

text \<open>Lines 178966 to 179061.\<close>

definition ts_parse_row_1113 :: parse_row where
  "ts_parse_row_1113 =
    [(aux_sym_deref_expression_repeat1, 1112), (sym_identifier, 2708), (anon_sym_EQ, 2710),
     (aux_sym_ERR_unexpected_this_in_path_token1, 2708),
     (aux_sym_ERR_unexpected_super_in_path_token1, 2708), (sym_line_comment, 3),
     (anon_sym_LBRACE, 2708), (anon_sym_LPAREN, 2710), (aux_sym_test_pragma_token1, 2710),
     (aux_sym_once_pragma_token1, 2710), (aux_sym_must_call_pragma_token1, 2710),
     (aux_sym_export_pragma_token1, 2710), (anon_sym_POUND, 2710), (sym_unsigned_int, 2708),
     (sym__explicit_signed_int, 2708), (sym_binary_int, 2710), (sym_octal_int, 2710),
     (sym_hex_int, 2710), (sym__explicit_signed_real, 2710), (sym_real_value, 2710),
     (aux_sym_bool_literal_with_string_token1, 2710),
     (aux_sym_bool_literal_with_string_token2, 2708),
     (aux_sym_bool_literal_with_string_token3, 2708), (sym_s_byte_char_str, 2710),
     (sym_d_byte_char_str, 2710), (aux_sym_time_token1, 2710), (anon_sym_PLUS, 2708),
     (anon_sym_DASH, 2708), (aux_sym_ltime_token1, 2710), (aux_sym_tod_token1, 2710),
     (aux_sym_ltod_token1, 2710), (aux_sym_short_date_token1, 2710),
     (aux_sym_long_date_token1, 2710), (aux_sym_short_date_and_time_token1, 2710),
     (aux_sym_long_date_and_time_token1, 2710), (aux_sym_sign_int_type_name_token1, 2708),
     (aux_sym_sign_int_type_name_token2, 2708), (aux_sym_sign_int_type_name_token3, 2708),
     (aux_sym_sign_int_type_name_token4, 2708), (aux_sym_unsign_int_type_name_token1, 2708),
     (aux_sym_unsign_int_type_name_token2, 2708), (aux_sym_unsign_int_type_name_token3, 2708),
     (aux_sym_unsign_int_type_name_token4, 2708), (aux_sym_real_type_name_token1, 2708),
     (aux_sym_real_type_name_token2, 2708), (aux_sym_string_name_token1, 2708),
     (anon_sym_LBRACK, 2682), (aux_sym_char_name_token1, 2708),
     (aux_sym_multibits_type_name_token1, 2708), (aux_sym_multibits_type_name_token2, 2708),
     (aux_sym_multibits_type_name_token3, 2708), (aux_sym_multibits_type_name_token4, 2708),
     (anon_sym_SEMI, 2710), (anon_sym_PERCENT, 2710), (anon_sym_STAR, 2708), (anon_sym_DOT, 2712),
     (aux_sym_ref_value_token1, 2708), (aux_sym_ref_addr_token1, 2708), (anon_sym_CARET, 2687),
     (anon_sym_DOT_DOT_DOT, 2710), (aux_sym_method_decl_token1, 2708), (anon_sym_SLASH, 2708),
     (anon_sym_STAR_STAR, 2710), (anon_sym_AMP, 2710), (anon_sym_LT_GT, 2710), (anon_sym_LT, 2708),
     (anon_sym_GT, 2708), (anon_sym_LT_EQ, 2710), (anon_sym_GT_EQ, 2710),
     (aux_sym_or_operator_token1, 2708), (aux_sym_xor_operator_token1, 2708),
     (aux_sym_and_operator_token1, 2708), (aux_sym_mult_token1, 2708), (aux_sym_unary_token1, 2708),
     (aux_sym__stmt_token1, 2708), (aux_sym__stmt_token2, 2708), (aux_sym__stmt_token3, 2708),
     (aux_sym_if_stmt_token1, 2708), (aux_sym_if_stmt_token3, 2708),
     (aux_sym_case_stmt_token1, 2708), (aux_sym_case_stmt_token2, 2708),
     (aux_sym_for_stmt_token1, 2708), (aux_sym_while_stmt_token1, 2708),
     (aux_sym_repeat_stmt_token1, 2708), (aux_sym_raise_stmt_token1, 2708),
     (aux_sym_try_stmt_token1, 2708), (aux_sym_try_stmt_token2, 2708),
     (aux_sym_catch_clause_token1, 2708), (aux_sym_finally_clause_token1, 2708),
     (sym_c_style_comment, 3), (sym_pascal_style_comment, 3), (sym_pragma, 3),
     (sym__minus_before_base, 2710), (sym__plus_before_base, 2710)]"

lemma ts_parse_row_1113_scan: "row_scan tokens_2_1 0 ts_parse_row_1113 = Some (Suc (Suc (Suc (Suc (Suc (Suc 0))))))"
  unfolding ts_parse_row_1113_def by simp

text \<open>Lines 179062 to 179157.\<close>

definition ts_parse_row_1114 :: parse_row where
  "ts_parse_row_1114 =
    [(aux_sym_deref_expression_repeat1, 1112), (sym_identifier, 2715), (anon_sym_EQ, 2717),
     (aux_sym_ERR_unexpected_this_in_path_token1, 2715),
     (aux_sym_ERR_unexpected_super_in_path_token1, 2715), (sym_line_comment, 3),
     (anon_sym_LBRACE, 2715), (anon_sym_LPAREN, 2717), (aux_sym_test_pragma_token1, 2717),
     (aux_sym_once_pragma_token1, 2717), (aux_sym_must_call_pragma_token1, 2717),
     (aux_sym_export_pragma_token1, 2717), (anon_sym_POUND, 2717), (sym_unsigned_int, 2715),
     (sym__explicit_signed_int, 2715), (sym_binary_int, 2717), (sym_octal_int, 2717),
     (sym_hex_int, 2717), (sym__explicit_signed_real, 2717), (sym_real_value, 2717),
     (aux_sym_bool_literal_with_string_token1, 2717),
     (aux_sym_bool_literal_with_string_token2, 2715),
     (aux_sym_bool_literal_with_string_token3, 2715), (sym_s_byte_char_str, 2717),
     (sym_d_byte_char_str, 2717), (aux_sym_time_token1, 2717), (anon_sym_PLUS, 2715),
     (anon_sym_DASH, 2715), (aux_sym_ltime_token1, 2717), (aux_sym_tod_token1, 2717),
     (aux_sym_ltod_token1, 2717), (aux_sym_short_date_token1, 2717),
     (aux_sym_long_date_token1, 2717), (aux_sym_short_date_and_time_token1, 2717),
     (aux_sym_long_date_and_time_token1, 2717), (aux_sym_sign_int_type_name_token1, 2715),
     (aux_sym_sign_int_type_name_token2, 2715), (aux_sym_sign_int_type_name_token3, 2715),
     (aux_sym_sign_int_type_name_token4, 2715), (aux_sym_unsign_int_type_name_token1, 2715),
     (aux_sym_unsign_int_type_name_token2, 2715), (aux_sym_unsign_int_type_name_token3, 2715),
     (aux_sym_unsign_int_type_name_token4, 2715), (aux_sym_real_type_name_token1, 2715),
     (aux_sym_real_type_name_token2, 2715), (aux_sym_string_name_token1, 2715),
     (anon_sym_LBRACK, 2682), (aux_sym_char_name_token1, 2715),
     (aux_sym_multibits_type_name_token1, 2715), (aux_sym_multibits_type_name_token2, 2715),
     (aux_sym_multibits_type_name_token3, 2715), (aux_sym_multibits_type_name_token4, 2715),
     (anon_sym_SEMI, 2717), (anon_sym_PERCENT, 2717), (anon_sym_STAR, 2715), (anon_sym_DOT, 2719),
     (aux_sym_ref_value_token1, 2715), (aux_sym_ref_addr_token1, 2715), (anon_sym_CARET, 2687),
     (anon_sym_DOT_DOT_DOT, 2717), (aux_sym_method_decl_token1, 2715), (anon_sym_SLASH, 2715),
     (anon_sym_STAR_STAR, 2717), (anon_sym_AMP, 2717), (anon_sym_LT_GT, 2717), (anon_sym_LT, 2715),
     (anon_sym_GT, 2715), (anon_sym_LT_EQ, 2717), (anon_sym_GT_EQ, 2717),
     (aux_sym_or_operator_token1, 2715), (aux_sym_xor_operator_token1, 2715),
     (aux_sym_and_operator_token1, 2715), (aux_sym_mult_token1, 2715), (aux_sym_unary_token1, 2715),
     (aux_sym__stmt_token1, 2715), (aux_sym__stmt_token2, 2715), (aux_sym__stmt_token3, 2715),
     (aux_sym_if_stmt_token1, 2715), (aux_sym_if_stmt_token3, 2715),
     (aux_sym_case_stmt_token1, 2715), (aux_sym_case_stmt_token2, 2715),
     (aux_sym_for_stmt_token1, 2715), (aux_sym_while_stmt_token1, 2715),
     (aux_sym_repeat_stmt_token1, 2715), (aux_sym_raise_stmt_token1, 2715),
     (aux_sym_try_stmt_token1, 2715), (aux_sym_try_stmt_token2, 2715),
     (aux_sym_catch_clause_token1, 2715), (aux_sym_finally_clause_token1, 2715),
     (sym_c_style_comment, 3), (sym_pascal_style_comment, 3), (sym_pragma, 3),
     (sym__minus_before_base, 2717), (sym__plus_before_base, 2717)]"

lemma ts_parse_row_1114_scan: "row_scan tokens_2_1 0 ts_parse_row_1114 = Some (Suc (Suc (Suc (Suc (Suc (Suc 0))))))"
  unfolding ts_parse_row_1114_def by simp

text \<open>Lines 179158 to 179252.\<close>

definition ts_parse_row_1115 :: parse_row where
  "ts_parse_row_1115 =
    [(sym_eq, 69), (sym_ord, 70), (sym_add, 71), (sym_mult, 72), (sym_identifier, 2722),
     (anon_sym_EQ, 2724), (aux_sym_ERR_unexpected_this_in_path_token1, 2722),
     (aux_sym_ERR_unexpected_super_in_path_token1, 2722), (sym_line_comment, 3),
     (anon_sym_LBRACE, 2722), (anon_sym_LPAREN, 2724), (aux_sym_test_pragma_token1, 2724),
     (aux_sym_once_pragma_token1, 2724), (aux_sym_must_call_pragma_token1, 2724),
     (aux_sym_export_pragma_token1, 2724), (sym_unsigned_int, 2722),
     (sym__explicit_signed_int, 2722), (sym_binary_int, 2724), (sym_octal_int, 2724),
     (sym_hex_int, 2724), (sym__explicit_signed_real, 2724), (sym_real_value, 2724),
     (aux_sym_bool_literal_with_string_token1, 2724),
     (aux_sym_bool_literal_with_string_token2, 2722),
     (aux_sym_bool_literal_with_string_token3, 2722), (sym_s_byte_char_str, 2724),
     (sym_d_byte_char_str, 2724), (aux_sym_time_token1, 2724), (anon_sym_PLUS, 2722),
     (anon_sym_DASH, 2722), (aux_sym_ltime_token1, 2724), (aux_sym_tod_token1, 2724),
     (aux_sym_ltod_token1, 2724), (aux_sym_short_date_token1, 2724),
     (aux_sym_long_date_token1, 2724), (aux_sym_short_date_and_time_token1, 2724),
     (aux_sym_long_date_and_time_token1, 2724), (aux_sym_sign_int_type_name_token1, 2722),
     (aux_sym_sign_int_type_name_token2, 2722), (aux_sym_sign_int_type_name_token3, 2722),
     (aux_sym_sign_int_type_name_token4, 2722), (aux_sym_unsign_int_type_name_token1, 2722),
     (aux_sym_unsign_int_type_name_token2, 2722), (aux_sym_unsign_int_type_name_token3, 2722),
     (aux_sym_unsign_int_type_name_token4, 2722), (aux_sym_real_type_name_token1, 2722),
     (aux_sym_real_type_name_token2, 2722), (aux_sym_string_name_token1, 2722),
     (aux_sym_char_name_token1, 2722), (aux_sym_multibits_type_name_token1, 2722),
     (aux_sym_multibits_type_name_token2, 2722), (aux_sym_multibits_type_name_token3, 2722),
     (aux_sym_multibits_type_name_token4, 2722), (anon_sym_SEMI, 2724), (anon_sym_PERCENT, 2724),
     (anon_sym_STAR, 2722), (aux_sym_ref_value_token1, 2722), (aux_sym_ref_addr_token1, 2722),
     (anon_sym_DOT_DOT_DOT, 2724), (aux_sym_method_decl_token1, 2722), (anon_sym_SLASH, 2722),
     (anon_sym_STAR_STAR, 2724), (anon_sym_AMP, 2724), (anon_sym_LT_GT, 2724), (anon_sym_LT, 2722),
     (anon_sym_GT, 2722), (anon_sym_LT_EQ, 2724), (anon_sym_GT_EQ, 2724),
     (aux_sym_or_operator_token1, 2722), (aux_sym_xor_operator_token1, 2722),
     (aux_sym_and_operator_token1, 2722), (aux_sym_mult_token1, 2722), (aux_sym_unary_token1, 2722),
     (aux_sym__stmt_token1, 2722), (aux_sym__stmt_token2, 2722), (aux_sym__stmt_token3, 2722),
     (aux_sym_if_stmt_token1, 2722), (aux_sym_if_stmt_token3, 2722),
     (aux_sym_case_stmt_token1, 2722), (aux_sym_case_stmt_token2, 2722),
     (aux_sym_for_stmt_token1, 2722), (aux_sym_while_stmt_token1, 2722),
     (aux_sym_repeat_stmt_token1, 2722), (aux_sym_raise_stmt_token1, 2722),
     (aux_sym_try_stmt_token1, 2722), (aux_sym_try_stmt_token2, 2722),
     (aux_sym_catch_clause_token1, 2722), (aux_sym_finally_clause_token1, 2722),
     (sym_c_style_comment, 3), (sym_pascal_style_comment, 3), (sym_pragma, 3),
     (sym__minus_before_base, 2724), (sym__plus_before_base, 2724)]"

lemma ts_parse_row_1115_scan: "row_scan tokens_2_1 0 ts_parse_row_1115 = Some (Suc (Suc (Suc (Suc (Suc (Suc 0))))))"
  unfolding ts_parse_row_1115_def by simp

text \<open>Lines 179253 to 179347.\<close>

definition ts_parse_row_1116 :: parse_row where
  "ts_parse_row_1116 =
    [(sym_eq, 69), (sym_ord, 70), (sym_add, 71), (sym_mult, 72), (sym_identifier, 2726),
     (anon_sym_EQ, 2728), (aux_sym_ERR_unexpected_this_in_path_token1, 2726),
     (aux_sym_ERR_unexpected_super_in_path_token1, 2726), (sym_line_comment, 3),
     (anon_sym_LBRACE, 2726), (anon_sym_LPAREN, 2730), (aux_sym_test_pragma_token1, 2730),
     (aux_sym_once_pragma_token1, 2730), (aux_sym_must_call_pragma_token1, 2730),
     (aux_sym_export_pragma_token1, 2730), (sym_unsigned_int, 2726),
     (sym__explicit_signed_int, 2726), (sym_binary_int, 2730), (sym_octal_int, 2730),
     (sym_hex_int, 2730), (sym__explicit_signed_real, 2730), (sym_real_value, 2730),
     (aux_sym_bool_literal_with_string_token1, 2730),
     (aux_sym_bool_literal_with_string_token2, 2726),
     (aux_sym_bool_literal_with_string_token3, 2726), (sym_s_byte_char_str, 2730),
     (sym_d_byte_char_str, 2730), (aux_sym_time_token1, 2730), (anon_sym_PLUS, 2732),
     (anon_sym_DASH, 2732), (aux_sym_ltime_token1, 2730), (aux_sym_tod_token1, 2730),
     (aux_sym_ltod_token1, 2730), (aux_sym_short_date_token1, 2730),
     (aux_sym_long_date_token1, 2730), (aux_sym_short_date_and_time_token1, 2730),
     (aux_sym_long_date_and_time_token1, 2730), (aux_sym_sign_int_type_name_token1, 2726),
     (aux_sym_sign_int_type_name_token2, 2726), (aux_sym_sign_int_type_name_token3, 2726),
     (aux_sym_sign_int_type_name_token4, 2726), (aux_sym_unsign_int_type_name_token1, 2726),
     (aux_sym_unsign_int_type_name_token2, 2726), (aux_sym_unsign_int_type_name_token3, 2726),
     (aux_sym_unsign_int_type_name_token4, 2726), (aux_sym_real_type_name_token1, 2726),
     (aux_sym_real_type_name_token2, 2726), (aux_sym_string_name_token1, 2726),
     (aux_sym_char_name_token1, 2726), (aux_sym_multibits_type_name_token1, 2726),
     (aux_sym_multibits_type_name_token2, 2726), (aux_sym_multibits_type_name_token3, 2726),
     (aux_sym_multibits_type_name_token4, 2726), (anon_sym_SEMI, 2730), (anon_sym_PERCENT, 2730),
     (anon_sym_STAR, 2734), (aux_sym_ref_value_token1, 2726), (aux_sym_ref_addr_token1, 2726),
     (anon_sym_DOT_DOT_DOT, 2730), (aux_sym_method_decl_token1, 2726), (anon_sym_SLASH, 2734),
     (anon_sym_STAR_STAR, 2736), (anon_sym_AMP, 2738), (anon_sym_LT_GT, 2728), (anon_sym_LT, 2740),
     (anon_sym_GT, 2740), (anon_sym_LT_EQ, 2742), (anon_sym_GT_EQ, 2742),
     (aux_sym_or_operator_token1, 2744), (aux_sym_xor_operator_token1, 2746),
     (aux_sym_and_operator_token1, 2748), (aux_sym_mult_token1, 2734), (aux_sym_unary_token1, 2726),
     (aux_sym__stmt_token1, 2726), (aux_sym__stmt_token2, 2726), (aux_sym__stmt_token3, 2726),
     (aux_sym_if_stmt_token1, 2726), (aux_sym_if_stmt_token3, 2726),
     (aux_sym_case_stmt_token1, 2726), (aux_sym_case_stmt_token2, 2726),
     (aux_sym_for_stmt_token1, 2726), (aux_sym_while_stmt_token1, 2726),
     (aux_sym_repeat_stmt_token1, 2726), (aux_sym_raise_stmt_token1, 2726),
     (aux_sym_try_stmt_token1, 2726), (aux_sym_try_stmt_token2, 2726),
     (aux_sym_catch_clause_token1, 2726), (aux_sym_finally_clause_token1, 2726),
     (sym_c_style_comment, 3), (sym_pascal_style_comment, 3), (sym_pragma, 3),
     (sym__minus_before_base, 2730), (sym__plus_before_base, 2730)]"

lemma ts_parse_row_1116_scan: "row_scan tokens_2_1 0 ts_parse_row_1116 = Some (Suc (Suc (Suc (Suc (Suc (Suc 0))))))"
  unfolding ts_parse_row_1116_def by simp

text \<open>Lines 179348 to 179442.\<close>

definition ts_parse_row_1117 :: parse_row where
  "ts_parse_row_1117 =
    [(sym_eq, 69), (sym_ord, 70), (sym_add, 71), (sym_mult, 72), (sym_identifier, 2750),
     (anon_sym_EQ, 2728), (aux_sym_ERR_unexpected_this_in_path_token1, 2750),
     (aux_sym_ERR_unexpected_super_in_path_token1, 2750), (sym_line_comment, 3),
     (anon_sym_LBRACE, 2750), (anon_sym_LPAREN, 2752), (aux_sym_test_pragma_token1, 2752),
     (aux_sym_once_pragma_token1, 2752), (aux_sym_must_call_pragma_token1, 2752),
     (aux_sym_export_pragma_token1, 2752), (sym_unsigned_int, 2750),
     (sym__explicit_signed_int, 2750), (sym_binary_int, 2752), (sym_octal_int, 2752),
     (sym_hex_int, 2752), (sym__explicit_signed_real, 2752), (sym_real_value, 2752),
     (aux_sym_bool_literal_with_string_token1, 2752),
     (aux_sym_bool_literal_with_string_token2, 2750),
     (aux_sym_bool_literal_with_string_token3, 2750), (sym_s_byte_char_str, 2752),
     (sym_d_byte_char_str, 2752), (aux_sym_time_token1, 2752), (anon_sym_PLUS, 2732),
     (anon_sym_DASH, 2732), (aux_sym_ltime_token1, 2752), (aux_sym_tod_token1, 2752),
     (aux_sym_ltod_token1, 2752), (aux_sym_short_date_token1, 2752),
     (aux_sym_long_date_token1, 2752), (aux_sym_short_date_and_time_token1, 2752),
     (aux_sym_long_date_and_time_token1, 2752), (aux_sym_sign_int_type_name_token1, 2750),
     (aux_sym_sign_int_type_name_token2, 2750), (aux_sym_sign_int_type_name_token3, 2750),
     (aux_sym_sign_int_type_name_token4, 2750), (aux_sym_unsign_int_type_name_token1, 2750),
     (aux_sym_unsign_int_type_name_token2, 2750), (aux_sym_unsign_int_type_name_token3, 2750),
     (aux_sym_unsign_int_type_name_token4, 2750), (aux_sym_real_type_name_token1, 2750),
     (aux_sym_real_type_name_token2, 2750), (aux_sym_string_name_token1, 2750),
     (aux_sym_char_name_token1, 2750), (aux_sym_multibits_type_name_token1, 2750),
     (aux_sym_multibits_type_name_token2, 2750), (aux_sym_multibits_type_name_token3, 2750),
     (aux_sym_multibits_type_name_token4, 2750), (anon_sym_SEMI, 2752), (anon_sym_PERCENT, 2752),
     (anon_sym_STAR, 2734), (aux_sym_ref_value_token1, 2750), (aux_sym_ref_addr_token1, 2750),
     (anon_sym_DOT_DOT_DOT, 2752), (aux_sym_method_decl_token1, 2750), (anon_sym_SLASH, 2734),
     (anon_sym_STAR_STAR, 2736), (anon_sym_AMP, 2738), (anon_sym_LT_GT, 2728), (anon_sym_LT, 2740),
     (anon_sym_GT, 2740), (anon_sym_LT_EQ, 2742), (anon_sym_GT_EQ, 2742),
     (aux_sym_or_operator_token1, 2744), (aux_sym_xor_operator_token1, 2746),
     (aux_sym_and_operator_token1, 2748), (aux_sym_mult_token1, 2734), (aux_sym_unary_token1, 2750),
     (aux_sym__stmt_token1, 2750), (aux_sym__stmt_token2, 2750), (aux_sym__stmt_token3, 2750),
     (aux_sym_if_stmt_token1, 2750), (aux_sym_if_stmt_token3, 2750),
     (aux_sym_case_stmt_token1, 2750), (aux_sym_case_stmt_token2, 2750),
     (aux_sym_for_stmt_token1, 2750), (aux_sym_while_stmt_token1, 2750),
     (aux_sym_repeat_stmt_token1, 2750), (aux_sym_raise_stmt_token1, 2750),
     (aux_sym_try_stmt_token1, 2750), (aux_sym_try_stmt_token2, 2750),
     (aux_sym_catch_clause_token1, 2750), (aux_sym_finally_clause_token1, 2750),
     (sym_c_style_comment, 3), (sym_pascal_style_comment, 3), (sym_pragma, 3),
     (sym__minus_before_base, 2752), (sym__plus_before_base, 2752)]"

lemma ts_parse_row_1117_scan: "row_scan tokens_2_1 0 ts_parse_row_1117 = Some (Suc (Suc (Suc (Suc (Suc (Suc 0))))))"
  unfolding ts_parse_row_1117_def by simp

text \<open>Lines 179443 to 179537.\<close>

definition ts_parse_row_1118 :: parse_row where
  "ts_parse_row_1118 =
    [(sym_eq, 69), (sym_ord, 70), (sym_add, 71), (sym_mult, 72), (sym_identifier, 2754),
     (anon_sym_EQ, 2728), (aux_sym_ERR_unexpected_this_in_path_token1, 2754),
     (aux_sym_ERR_unexpected_super_in_path_token1, 2754), (sym_line_comment, 3),
     (anon_sym_LBRACE, 2754), (anon_sym_LPAREN, 2756), (aux_sym_test_pragma_token1, 2756),
     (aux_sym_once_pragma_token1, 2756), (aux_sym_must_call_pragma_token1, 2756),
     (aux_sym_export_pragma_token1, 2756), (sym_unsigned_int, 2754),
     (sym__explicit_signed_int, 2754), (sym_binary_int, 2756), (sym_octal_int, 2756),
     (sym_hex_int, 2756), (sym__explicit_signed_real, 2756), (sym_real_value, 2756),
     (aux_sym_bool_literal_with_string_token1, 2756),
     (aux_sym_bool_literal_with_string_token2, 2754),
     (aux_sym_bool_literal_with_string_token3, 2754), (sym_s_byte_char_str, 2756),
     (sym_d_byte_char_str, 2756), (aux_sym_time_token1, 2756), (anon_sym_PLUS, 2732),
     (anon_sym_DASH, 2732), (aux_sym_ltime_token1, 2756), (aux_sym_tod_token1, 2756),
     (aux_sym_ltod_token1, 2756), (aux_sym_short_date_token1, 2756),
     (aux_sym_long_date_token1, 2756), (aux_sym_short_date_and_time_token1, 2756),
     (aux_sym_long_date_and_time_token1, 2756), (aux_sym_sign_int_type_name_token1, 2754),
     (aux_sym_sign_int_type_name_token2, 2754), (aux_sym_sign_int_type_name_token3, 2754),
     (aux_sym_sign_int_type_name_token4, 2754), (aux_sym_unsign_int_type_name_token1, 2754),
     (aux_sym_unsign_int_type_name_token2, 2754), (aux_sym_unsign_int_type_name_token3, 2754),
     (aux_sym_unsign_int_type_name_token4, 2754), (aux_sym_real_type_name_token1, 2754),
     (aux_sym_real_type_name_token2, 2754), (aux_sym_string_name_token1, 2754),
     (aux_sym_char_name_token1, 2754), (aux_sym_multibits_type_name_token1, 2754),
     (aux_sym_multibits_type_name_token2, 2754), (aux_sym_multibits_type_name_token3, 2754),
     (aux_sym_multibits_type_name_token4, 2754), (anon_sym_SEMI, 2756), (anon_sym_PERCENT, 2756),
     (anon_sym_STAR, 2734), (aux_sym_ref_value_token1, 2754), (aux_sym_ref_addr_token1, 2754),
     (anon_sym_DOT_DOT_DOT, 2756), (aux_sym_method_decl_token1, 2754), (anon_sym_SLASH, 2734),
     (anon_sym_STAR_STAR, 2736), (anon_sym_AMP, 2738), (anon_sym_LT_GT, 2728), (anon_sym_LT, 2740),
     (anon_sym_GT, 2740), (anon_sym_LT_EQ, 2742), (anon_sym_GT_EQ, 2742),
     (aux_sym_or_operator_token1, 2744), (aux_sym_xor_operator_token1, 2746),
     (aux_sym_and_operator_token1, 2748), (aux_sym_mult_token1, 2734), (aux_sym_unary_token1, 2754),
     (aux_sym__stmt_token1, 2754), (aux_sym__stmt_token2, 2754), (aux_sym__stmt_token3, 2754),
     (aux_sym_if_stmt_token1, 2754), (aux_sym_if_stmt_token3, 2754),
     (aux_sym_case_stmt_token1, 2754), (aux_sym_case_stmt_token2, 2754),
     (aux_sym_for_stmt_token1, 2754), (aux_sym_while_stmt_token1, 2754),
     (aux_sym_repeat_stmt_token1, 2754), (aux_sym_raise_stmt_token1, 2754),
     (aux_sym_try_stmt_token1, 2754), (aux_sym_try_stmt_token2, 2754),
     (aux_sym_catch_clause_token1, 2754), (aux_sym_finally_clause_token1, 2754),
     (sym_c_style_comment, 3), (sym_pascal_style_comment, 3), (sym_pragma, 3),
     (sym__minus_before_base, 2756), (sym__plus_before_base, 2756)]"

lemma ts_parse_row_1118_scan: "row_scan tokens_2_1 0 ts_parse_row_1118 = Some (Suc (Suc (Suc (Suc (Suc (Suc 0))))))"
  unfolding ts_parse_row_1118_def by simp

text \<open>Lines 179538 to 179632.\<close>

definition ts_parse_row_1119 :: parse_row where
  "ts_parse_row_1119 =
    [(sym_eq, 69), (sym_ord, 70), (sym_add, 71), (sym_mult, 72), (sym_identifier, 2758),
     (anon_sym_EQ, 2728), (aux_sym_ERR_unexpected_this_in_path_token1, 2758),
     (aux_sym_ERR_unexpected_super_in_path_token1, 2758), (sym_line_comment, 3),
     (anon_sym_LBRACE, 2758), (anon_sym_LPAREN, 2760), (aux_sym_test_pragma_token1, 2760),
     (aux_sym_once_pragma_token1, 2760), (aux_sym_must_call_pragma_token1, 2760),
     (aux_sym_export_pragma_token1, 2760), (sym_unsigned_int, 2758),
     (sym__explicit_signed_int, 2758), (sym_binary_int, 2760), (sym_octal_int, 2760),
     (sym_hex_int, 2760), (sym__explicit_signed_real, 2760), (sym_real_value, 2760),
     (aux_sym_bool_literal_with_string_token1, 2760),
     (aux_sym_bool_literal_with_string_token2, 2758),
     (aux_sym_bool_literal_with_string_token3, 2758), (sym_s_byte_char_str, 2760),
     (sym_d_byte_char_str, 2760), (aux_sym_time_token1, 2760), (anon_sym_PLUS, 2732),
     (anon_sym_DASH, 2732), (aux_sym_ltime_token1, 2760), (aux_sym_tod_token1, 2760),
     (aux_sym_ltod_token1, 2760), (aux_sym_short_date_token1, 2760),
     (aux_sym_long_date_token1, 2760), (aux_sym_short_date_and_time_token1, 2760),
     (aux_sym_long_date_and_time_token1, 2760), (aux_sym_sign_int_type_name_token1, 2758),
     (aux_sym_sign_int_type_name_token2, 2758), (aux_sym_sign_int_type_name_token3, 2758),
     (aux_sym_sign_int_type_name_token4, 2758), (aux_sym_unsign_int_type_name_token1, 2758),
     (aux_sym_unsign_int_type_name_token2, 2758), (aux_sym_unsign_int_type_name_token3, 2758),
     (aux_sym_unsign_int_type_name_token4, 2758), (aux_sym_real_type_name_token1, 2758),
     (aux_sym_real_type_name_token2, 2758), (aux_sym_string_name_token1, 2758),
     (aux_sym_char_name_token1, 2758), (aux_sym_multibits_type_name_token1, 2758),
     (aux_sym_multibits_type_name_token2, 2758), (aux_sym_multibits_type_name_token3, 2758),
     (aux_sym_multibits_type_name_token4, 2758), (anon_sym_SEMI, 2760), (anon_sym_PERCENT, 2760),
     (anon_sym_STAR, 2734), (aux_sym_ref_value_token1, 2758), (aux_sym_ref_addr_token1, 2758),
     (anon_sym_DOT_DOT_DOT, 2760), (aux_sym_method_decl_token1, 2758), (anon_sym_SLASH, 2734),
     (anon_sym_STAR_STAR, 2736), (anon_sym_AMP, 2738), (anon_sym_LT_GT, 2728), (anon_sym_LT, 2740),
     (anon_sym_GT, 2740), (anon_sym_LT_EQ, 2742), (anon_sym_GT_EQ, 2742),
     (aux_sym_or_operator_token1, 2744), (aux_sym_xor_operator_token1, 2746),
     (aux_sym_and_operator_token1, 2748), (aux_sym_mult_token1, 2734), (aux_sym_unary_token1, 2758),
     (aux_sym__stmt_token1, 2758), (aux_sym__stmt_token2, 2758), (aux_sym__stmt_token3, 2758),
     (aux_sym_if_stmt_token1, 2758), (aux_sym_if_stmt_token3, 2758),
     (aux_sym_case_stmt_token1, 2758), (aux_sym_case_stmt_token2, 2758),
     (aux_sym_for_stmt_token1, 2758), (aux_sym_while_stmt_token1, 2758),
     (aux_sym_repeat_stmt_token1, 2758), (aux_sym_raise_stmt_token1, 2758),
     (aux_sym_try_stmt_token1, 2758), (aux_sym_try_stmt_token2, 2758),
     (aux_sym_catch_clause_token1, 2758), (aux_sym_finally_clause_token1, 2758),
     (sym_c_style_comment, 3), (sym_pascal_style_comment, 3), (sym_pragma, 3),
     (sym__minus_before_base, 2760), (sym__plus_before_base, 2760)]"

lemma ts_parse_row_1119_scan: "row_scan tokens_2_1 0 ts_parse_row_1119 = Some (Suc (Suc (Suc (Suc (Suc (Suc 0))))))"
  unfolding ts_parse_row_1119_def by simp

text \<open>Lines 179633 to 179727.\<close>

definition ts_parse_row_1120 :: parse_row where
  "ts_parse_row_1120 =
    [(sym_eq, 69), (sym_ord, 70), (sym_add, 71), (sym_mult, 72), (sym_identifier, 2762),
     (anon_sym_EQ, 2764), (aux_sym_ERR_unexpected_this_in_path_token1, 2762),
     (aux_sym_ERR_unexpected_super_in_path_token1, 2762), (sym_line_comment, 3),
     (anon_sym_LBRACE, 2762), (anon_sym_LPAREN, 2764), (aux_sym_test_pragma_token1, 2764),
     (aux_sym_once_pragma_token1, 2764), (aux_sym_must_call_pragma_token1, 2764),
     (aux_sym_export_pragma_token1, 2764), (sym_unsigned_int, 2762),
     (sym__explicit_signed_int, 2762), (sym_binary_int, 2764), (sym_octal_int, 2764),
     (sym_hex_int, 2764), (sym__explicit_signed_real, 2764), (sym_real_value, 2764),
     (aux_sym_bool_literal_with_string_token1, 2764),
     (aux_sym_bool_literal_with_string_token2, 2762),
     (aux_sym_bool_literal_with_string_token3, 2762), (sym_s_byte_char_str, 2764),
     (sym_d_byte_char_str, 2764), (aux_sym_time_token1, 2764), (anon_sym_PLUS, 2762),
     (anon_sym_DASH, 2762), (aux_sym_ltime_token1, 2764), (aux_sym_tod_token1, 2764),
     (aux_sym_ltod_token1, 2764), (aux_sym_short_date_token1, 2764),
     (aux_sym_long_date_token1, 2764), (aux_sym_short_date_and_time_token1, 2764),
     (aux_sym_long_date_and_time_token1, 2764), (aux_sym_sign_int_type_name_token1, 2762),
     (aux_sym_sign_int_type_name_token2, 2762), (aux_sym_sign_int_type_name_token3, 2762),
     (aux_sym_sign_int_type_name_token4, 2762), (aux_sym_unsign_int_type_name_token1, 2762),
     (aux_sym_unsign_int_type_name_token2, 2762), (aux_sym_unsign_int_type_name_token3, 2762),
     (aux_sym_unsign_int_type_name_token4, 2762), (aux_sym_real_type_name_token1, 2762),
     (aux_sym_real_type_name_token2, 2762), (aux_sym_string_name_token1, 2762),
     (aux_sym_char_name_token1, 2762), (aux_sym_multibits_type_name_token1, 2762),
     (aux_sym_multibits_type_name_token2, 2762), (aux_sym_multibits_type_name_token3, 2762),
     (aux_sym_multibits_type_name_token4, 2762), (anon_sym_SEMI, 2764), (anon_sym_PERCENT, 2764),
     (anon_sym_STAR, 2762), (aux_sym_ref_value_token1, 2762), (aux_sym_ref_addr_token1, 2762),
     (anon_sym_DOT_DOT_DOT, 2764), (aux_sym_method_decl_token1, 2762), (anon_sym_SLASH, 2762),
     (anon_sym_STAR_STAR, 2764), (anon_sym_AMP, 2764), (anon_sym_LT_GT, 2764), (anon_sym_LT, 2762),
     (anon_sym_GT, 2762), (anon_sym_LT_EQ, 2764), (anon_sym_GT_EQ, 2764),
     (aux_sym_or_operator_token1, 2762), (aux_sym_xor_operator_token1, 2762),
     (aux_sym_and_operator_token1, 2762), (aux_sym_mult_token1, 2762), (aux_sym_unary_token1, 2762),
     (aux_sym__stmt_token1, 2762), (aux_sym__stmt_token2, 2762), (aux_sym__stmt_token3, 2762),
     (aux_sym_if_stmt_token1, 2762), (aux_sym_if_stmt_token3, 2762),
     (aux_sym_case_stmt_token1, 2762), (aux_sym_case_stmt_token2, 2762),
     (aux_sym_for_stmt_token1, 2762), (aux_sym_while_stmt_token1, 2762),
     (aux_sym_repeat_stmt_token1, 2762), (aux_sym_raise_stmt_token1, 2762),
     (aux_sym_try_stmt_token1, 2762), (aux_sym_try_stmt_token2, 2762),
     (aux_sym_catch_clause_token1, 2762), (aux_sym_finally_clause_token1, 2762),
     (sym_c_style_comment, 3), (sym_pascal_style_comment, 3), (sym_pragma, 3),
     (sym__minus_before_base, 2764), (sym__plus_before_base, 2764)]"

lemma ts_parse_row_1120_scan: "row_scan tokens_2_1 0 ts_parse_row_1120 = Some (Suc (Suc (Suc (Suc (Suc (Suc 0))))))"
  unfolding ts_parse_row_1120_def by simp

text \<open>Lines 179728 to 179822.\<close>

definition ts_parse_row_1121 :: parse_row where
  "ts_parse_row_1121 =
    [(sym_eq, 69), (sym_ord, 70), (sym_add, 71), (sym_mult, 72), (sym_identifier, 2766),
     (anon_sym_EQ, 2728), (aux_sym_ERR_unexpected_this_in_path_token1, 2766),
     (aux_sym_ERR_unexpected_super_in_path_token1, 2766), (sym_line_comment, 3),
     (anon_sym_LBRACE, 2766), (anon_sym_LPAREN, 2768), (aux_sym_test_pragma_token1, 2768),
     (aux_sym_once_pragma_token1, 2768), (aux_sym_must_call_pragma_token1, 2768),
     (aux_sym_export_pragma_token1, 2768), (sym_unsigned_int, 2766),
     (sym__explicit_signed_int, 2766), (sym_binary_int, 2768), (sym_octal_int, 2768),
     (sym_hex_int, 2768), (sym__explicit_signed_real, 2768), (sym_real_value, 2768),
     (aux_sym_bool_literal_with_string_token1, 2768),
     (aux_sym_bool_literal_with_string_token2, 2766),
     (aux_sym_bool_literal_with_string_token3, 2766), (sym_s_byte_char_str, 2768),
     (sym_d_byte_char_str, 2768), (aux_sym_time_token1, 2768), (anon_sym_PLUS, 2732),
     (anon_sym_DASH, 2732), (aux_sym_ltime_token1, 2768), (aux_sym_tod_token1, 2768),
     (aux_sym_ltod_token1, 2768), (aux_sym_short_date_token1, 2768),
     (aux_sym_long_date_token1, 2768), (aux_sym_short_date_and_time_token1, 2768),
     (aux_sym_long_date_and_time_token1, 2768), (aux_sym_sign_int_type_name_token1, 2766),
     (aux_sym_sign_int_type_name_token2, 2766), (aux_sym_sign_int_type_name_token3, 2766),
     (aux_sym_sign_int_type_name_token4, 2766), (aux_sym_unsign_int_type_name_token1, 2766),
     (aux_sym_unsign_int_type_name_token2, 2766), (aux_sym_unsign_int_type_name_token3, 2766),
     (aux_sym_unsign_int_type_name_token4, 2766), (aux_sym_real_type_name_token1, 2766),
     (aux_sym_real_type_name_token2, 2766), (aux_sym_string_name_token1, 2766),
     (aux_sym_char_name_token1, 2766), (aux_sym_multibits_type_name_token1, 2766),
     (aux_sym_multibits_type_name_token2, 2766), (aux_sym_multibits_type_name_token3, 2766),
     (aux_sym_multibits_type_name_token4, 2766), (anon_sym_SEMI, 2768), (anon_sym_PERCENT, 2768),
     (anon_sym_STAR, 2734), (aux_sym_ref_value_token1, 2766), (aux_sym_ref_addr_token1, 2766),
     (anon_sym_DOT_DOT_DOT, 2768), (aux_sym_method_decl_token1, 2766), (anon_sym_SLASH, 2734),
     (anon_sym_STAR_STAR, 2736), (anon_sym_AMP, 2768), (anon_sym_LT_GT, 2728), (anon_sym_LT, 2740),
     (anon_sym_GT, 2740), (anon_sym_LT_EQ, 2742), (anon_sym_GT_EQ, 2742),
     (aux_sym_or_operator_token1, 2766), (aux_sym_xor_operator_token1, 2766),
     (aux_sym_and_operator_token1, 2766), (aux_sym_mult_token1, 2734), (aux_sym_unary_token1, 2766),
     (aux_sym__stmt_token1, 2766), (aux_sym__stmt_token2, 2766), (aux_sym__stmt_token3, 2766),
     (aux_sym_if_stmt_token1, 2766), (aux_sym_if_stmt_token3, 2766),
     (aux_sym_case_stmt_token1, 2766), (aux_sym_case_stmt_token2, 2766),
     (aux_sym_for_stmt_token1, 2766), (aux_sym_while_stmt_token1, 2766),
     (aux_sym_repeat_stmt_token1, 2766), (aux_sym_raise_stmt_token1, 2766),
     (aux_sym_try_stmt_token1, 2766), (aux_sym_try_stmt_token2, 2766),
     (aux_sym_catch_clause_token1, 2766), (aux_sym_finally_clause_token1, 2766),
     (sym_c_style_comment, 3), (sym_pascal_style_comment, 3), (sym_pragma, 3),
     (sym__minus_before_base, 2768), (sym__plus_before_base, 2768)]"

lemma ts_parse_row_1121_scan: "row_scan tokens_2_1 0 ts_parse_row_1121 = Some (Suc (Suc (Suc (Suc (Suc (Suc 0))))))"
  unfolding ts_parse_row_1121_def by simp

text \<open>Lines 179823 to 179917.\<close>

definition ts_parse_row_1122 :: parse_row where
  "ts_parse_row_1122 =
    [(sym_eq, 69), (sym_ord, 70), (sym_add, 71), (sym_mult, 72), (sym_identifier, 2770),
     (anon_sym_EQ, 2728), (aux_sym_ERR_unexpected_this_in_path_token1, 2770),
     (aux_sym_ERR_unexpected_super_in_path_token1, 2770), (sym_line_comment, 3),
     (anon_sym_LBRACE, 2770), (anon_sym_LPAREN, 2772), (aux_sym_test_pragma_token1, 2772),
     (aux_sym_once_pragma_token1, 2772), (aux_sym_must_call_pragma_token1, 2772),
     (aux_sym_export_pragma_token1, 2772), (sym_unsigned_int, 2770),
     (sym__explicit_signed_int, 2770), (sym_binary_int, 2772), (sym_octal_int, 2772),
     (sym_hex_int, 2772), (sym__explicit_signed_real, 2772), (sym_real_value, 2772),
     (aux_sym_bool_literal_with_string_token1, 2772),
     (aux_sym_bool_literal_with_string_token2, 2770),
     (aux_sym_bool_literal_with_string_token3, 2770), (sym_s_byte_char_str, 2772),
     (sym_d_byte_char_str, 2772), (aux_sym_time_token1, 2772), (anon_sym_PLUS, 2732),
     (anon_sym_DASH, 2732), (aux_sym_ltime_token1, 2772), (aux_sym_tod_token1, 2772),
     (aux_sym_ltod_token1, 2772), (aux_sym_short_date_token1, 2772),
     (aux_sym_long_date_token1, 2772), (aux_sym_short_date_and_time_token1, 2772),
     (aux_sym_long_date_and_time_token1, 2772), (aux_sym_sign_int_type_name_token1, 2770),
     (aux_sym_sign_int_type_name_token2, 2770), (aux_sym_sign_int_type_name_token3, 2770),
     (aux_sym_sign_int_type_name_token4, 2770), (aux_sym_unsign_int_type_name_token1, 2770),
     (aux_sym_unsign_int_type_name_token2, 2770), (aux_sym_unsign_int_type_name_token3, 2770),
     (aux_sym_unsign_int_type_name_token4, 2770), (aux_sym_real_type_name_token1, 2770),
     (aux_sym_real_type_name_token2, 2770), (aux_sym_string_name_token1, 2770),
     (aux_sym_char_name_token1, 2770), (aux_sym_multibits_type_name_token1, 2770),
     (aux_sym_multibits_type_name_token2, 2770), (aux_sym_multibits_type_name_token3, 2770),
     (aux_sym_multibits_type_name_token4, 2770), (anon_sym_SEMI, 2772), (anon_sym_PERCENT, 2772),
     (anon_sym_STAR, 2734), (aux_sym_ref_value_token1, 2770), (aux_sym_ref_addr_token1, 2770),
     (anon_sym_DOT_DOT_DOT, 2772), (aux_sym_method_decl_token1, 2770), (anon_sym_SLASH, 2734),
     (anon_sym_STAR_STAR, 2736), (anon_sym_AMP, 2738), (anon_sym_LT_GT, 2728), (anon_sym_LT, 2740),
     (anon_sym_GT, 2740), (anon_sym_LT_EQ, 2742), (anon_sym_GT_EQ, 2742),
     (aux_sym_or_operator_token1, 2770), (aux_sym_xor_operator_token1, 2746),
     (aux_sym_and_operator_token1, 2748), (aux_sym_mult_token1, 2734), (aux_sym_unary_token1, 2770),
     (aux_sym__stmt_token1, 2770), (aux_sym__stmt_token2, 2770), (aux_sym__stmt_token3, 2770),
     (aux_sym_if_stmt_token1, 2770), (aux_sym_if_stmt_token3, 2770),
     (aux_sym_case_stmt_token1, 2770), (aux_sym_case_stmt_token2, 2770),
     (aux_sym_for_stmt_token1, 2770), (aux_sym_while_stmt_token1, 2770),
     (aux_sym_repeat_stmt_token1, 2770), (aux_sym_raise_stmt_token1, 2770),
     (aux_sym_try_stmt_token1, 2770), (aux_sym_try_stmt_token2, 2770),
     (aux_sym_catch_clause_token1, 2770), (aux_sym_finally_clause_token1, 2770),
     (sym_c_style_comment, 3), (sym_pascal_style_comment, 3), (sym_pragma, 3),
     (sym__minus_before_base, 2772), (sym__plus_before_base, 2772)]"

lemma ts_parse_row_1122_scan: "row_scan tokens_2_1 0 ts_parse_row_1122 = Some (Suc (Suc (Suc (Suc (Suc (Suc 0))))))"
  unfolding ts_parse_row_1122_def by simp

text \<open>Lines 179918 to 180012.\<close>

definition ts_parse_row_1123 :: parse_row where
  "ts_parse_row_1123 =
    [(sym_eq, 69), (sym_ord, 70), (sym_add, 71), (sym_mult, 72), (sym_identifier, 2774),
     (anon_sym_EQ, 2728), (aux_sym_ERR_unexpected_this_in_path_token1, 2774),
     (aux_sym_ERR_unexpected_super_in_path_token1, 2774), (sym_line_comment, 3),
     (anon_sym_LBRACE, 2774), (anon_sym_LPAREN, 2776), (aux_sym_test_pragma_token1, 2776),
     (aux_sym_once_pragma_token1, 2776), (aux_sym_must_call_pragma_token1, 2776),
     (aux_sym_export_pragma_token1, 2776), (sym_unsigned_int, 2774),
     (sym__explicit_signed_int, 2774), (sym_binary_int, 2776), (sym_octal_int, 2776),
     (sym_hex_int, 2776), (sym__explicit_signed_real, 2776), (sym_real_value, 2776),
     (aux_sym_bool_literal_with_string_token1, 2776),
     (aux_sym_bool_literal_with_string_token2, 2774),
     (aux_sym_bool_literal_with_string_token3, 2774), (sym_s_byte_char_str, 2776),
     (sym_d_byte_char_str, 2776), (aux_sym_time_token1, 2776), (anon_sym_PLUS, 2732),
     (anon_sym_DASH, 2732), (aux_sym_ltime_token1, 2776), (aux_sym_tod_token1, 2776),
     (aux_sym_ltod_token1, 2776), (aux_sym_short_date_token1, 2776),
     (aux_sym_long_date_token1, 2776), (aux_sym_short_date_and_time_token1, 2776),
     (aux_sym_long_date_and_time_token1, 2776), (aux_sym_sign_int_type_name_token1, 2774),
     (aux_sym_sign_int_type_name_token2, 2774), (aux_sym_sign_int_type_name_token3, 2774),
     (aux_sym_sign_int_type_name_token4, 2774), (aux_sym_unsign_int_type_name_token1, 2774),
     (aux_sym_unsign_int_type_name_token2, 2774), (aux_sym_unsign_int_type_name_token3, 2774),
     (aux_sym_unsign_int_type_name_token4, 2774), (aux_sym_real_type_name_token1, 2774),
     (aux_sym_real_type_name_token2, 2774), (aux_sym_string_name_token1, 2774),
     (aux_sym_char_name_token1, 2774), (aux_sym_multibits_type_name_token1, 2774),
     (aux_sym_multibits_type_name_token2, 2774), (aux_sym_multibits_type_name_token3, 2774),
     (aux_sym_multibits_type_name_token4, 2774), (anon_sym_SEMI, 2776), (anon_sym_PERCENT, 2776),
     (anon_sym_STAR, 2734), (aux_sym_ref_value_token1, 2774), (aux_sym_ref_addr_token1, 2774),
     (anon_sym_DOT_DOT_DOT, 2776), (aux_sym_method_decl_token1, 2774), (anon_sym_SLASH, 2734),
     (anon_sym_STAR_STAR, 2736), (anon_sym_AMP, 2738), (anon_sym_LT_GT, 2728), (anon_sym_LT, 2740),
     (anon_sym_GT, 2740), (anon_sym_LT_EQ, 2742), (anon_sym_GT_EQ, 2742),
     (aux_sym_or_operator_token1, 2774), (aux_sym_xor_operator_token1, 2774),
     (aux_sym_and_operator_token1, 2748), (aux_sym_mult_token1, 2734), (aux_sym_unary_token1, 2774),
     (aux_sym__stmt_token1, 2774), (aux_sym__stmt_token2, 2774), (aux_sym__stmt_token3, 2774),
     (aux_sym_if_stmt_token1, 2774), (aux_sym_if_stmt_token3, 2774),
     (aux_sym_case_stmt_token1, 2774), (aux_sym_case_stmt_token2, 2774),
     (aux_sym_for_stmt_token1, 2774), (aux_sym_while_stmt_token1, 2774),
     (aux_sym_repeat_stmt_token1, 2774), (aux_sym_raise_stmt_token1, 2774),
     (aux_sym_try_stmt_token1, 2774), (aux_sym_try_stmt_token2, 2774),
     (aux_sym_catch_clause_token1, 2774), (aux_sym_finally_clause_token1, 2774),
     (sym_c_style_comment, 3), (sym_pascal_style_comment, 3), (sym_pragma, 3),
     (sym__minus_before_base, 2776), (sym__plus_before_base, 2776)]"

lemma ts_parse_row_1123_scan: "row_scan tokens_2_1 0 ts_parse_row_1123 = Some (Suc (Suc (Suc (Suc (Suc (Suc 0))))))"
  unfolding ts_parse_row_1123_def by simp

text \<open>Lines 180013 to 180107.\<close>

definition ts_parse_row_1124 :: parse_row where
  "ts_parse_row_1124 =
    [(sym_eq, 69), (sym_ord, 70), (sym_add, 71), (sym_mult, 72), (sym_identifier, 2778),
     (anon_sym_EQ, 2780), (aux_sym_ERR_unexpected_this_in_path_token1, 2778),
     (aux_sym_ERR_unexpected_super_in_path_token1, 2778), (sym_line_comment, 3),
     (anon_sym_LBRACE, 2778), (anon_sym_LPAREN, 2780), (aux_sym_test_pragma_token1, 2780),
     (aux_sym_once_pragma_token1, 2780), (aux_sym_must_call_pragma_token1, 2780),
     (aux_sym_export_pragma_token1, 2780), (sym_unsigned_int, 2778),
     (sym__explicit_signed_int, 2778), (sym_binary_int, 2780), (sym_octal_int, 2780),
     (sym_hex_int, 2780), (sym__explicit_signed_real, 2780), (sym_real_value, 2780),
     (aux_sym_bool_literal_with_string_token1, 2780),
     (aux_sym_bool_literal_with_string_token2, 2778),
     (aux_sym_bool_literal_with_string_token3, 2778), (sym_s_byte_char_str, 2780),
     (sym_d_byte_char_str, 2780), (aux_sym_time_token1, 2780), (anon_sym_PLUS, 2732),
     (anon_sym_DASH, 2732), (aux_sym_ltime_token1, 2780), (aux_sym_tod_token1, 2780),
     (aux_sym_ltod_token1, 2780), (aux_sym_short_date_token1, 2780),
     (aux_sym_long_date_token1, 2780), (aux_sym_short_date_and_time_token1, 2780),
     (aux_sym_long_date_and_time_token1, 2780), (aux_sym_sign_int_type_name_token1, 2778),
     (aux_sym_sign_int_type_name_token2, 2778), (aux_sym_sign_int_type_name_token3, 2778),
     (aux_sym_sign_int_type_name_token4, 2778), (aux_sym_unsign_int_type_name_token1, 2778),
     (aux_sym_unsign_int_type_name_token2, 2778), (aux_sym_unsign_int_type_name_token3, 2778),
     (aux_sym_unsign_int_type_name_token4, 2778), (aux_sym_real_type_name_token1, 2778),
     (aux_sym_real_type_name_token2, 2778), (aux_sym_string_name_token1, 2778),
     (aux_sym_char_name_token1, 2778), (aux_sym_multibits_type_name_token1, 2778),
     (aux_sym_multibits_type_name_token2, 2778), (aux_sym_multibits_type_name_token3, 2778),
     (aux_sym_multibits_type_name_token4, 2778), (anon_sym_SEMI, 2780), (anon_sym_PERCENT, 2780),
     (anon_sym_STAR, 2734), (aux_sym_ref_value_token1, 2778), (aux_sym_ref_addr_token1, 2778),
     (anon_sym_DOT_DOT_DOT, 2780), (aux_sym_method_decl_token1, 2778), (anon_sym_SLASH, 2734),
     (anon_sym_STAR_STAR, 2736), (anon_sym_AMP, 2780), (anon_sym_LT_GT, 2780), (anon_sym_LT, 2778),
     (anon_sym_GT, 2778), (anon_sym_LT_EQ, 2780), (anon_sym_GT_EQ, 2780),
     (aux_sym_or_operator_token1, 2778), (aux_sym_xor_operator_token1, 2778),
     (aux_sym_and_operator_token1, 2778), (aux_sym_mult_token1, 2734), (aux_sym_unary_token1, 2778),
     (aux_sym__stmt_token1, 2778), (aux_sym__stmt_token2, 2778), (aux_sym__stmt_token3, 2778),
     (aux_sym_if_stmt_token1, 2778), (aux_sym_if_stmt_token3, 2778),
     (aux_sym_case_stmt_token1, 2778), (aux_sym_case_stmt_token2, 2778),
     (aux_sym_for_stmt_token1, 2778), (aux_sym_while_stmt_token1, 2778),
     (aux_sym_repeat_stmt_token1, 2778), (aux_sym_raise_stmt_token1, 2778),
     (aux_sym_try_stmt_token1, 2778), (aux_sym_try_stmt_token2, 2778),
     (aux_sym_catch_clause_token1, 2778), (aux_sym_finally_clause_token1, 2778),
     (sym_c_style_comment, 3), (sym_pascal_style_comment, 3), (sym_pragma, 3),
     (sym__minus_before_base, 2780), (sym__plus_before_base, 2780)]"

lemma ts_parse_row_1124_scan: "row_scan tokens_2_1 0 ts_parse_row_1124 = Some (Suc (Suc (Suc (Suc (Suc (Suc 0))))))"
  unfolding ts_parse_row_1124_def by simp

text \<open>Lines 180108 to 180202.\<close>

definition ts_parse_row_1125 :: parse_row where
  "ts_parse_row_1125 =
    [(sym_eq, 69), (sym_ord, 70), (sym_add, 71), (sym_mult, 72), (sym_identifier, 2782),
     (anon_sym_EQ, 2784), (aux_sym_ERR_unexpected_this_in_path_token1, 2782),
     (aux_sym_ERR_unexpected_super_in_path_token1, 2782), (sym_line_comment, 3),
     (anon_sym_LBRACE, 2782), (anon_sym_LPAREN, 2784), (aux_sym_test_pragma_token1, 2784),
     (aux_sym_once_pragma_token1, 2784), (aux_sym_must_call_pragma_token1, 2784),
     (aux_sym_export_pragma_token1, 2784), (sym_unsigned_int, 2782),
     (sym__explicit_signed_int, 2782), (sym_binary_int, 2784), (sym_octal_int, 2784),
     (sym_hex_int, 2784), (sym__explicit_signed_real, 2784), (sym_real_value, 2784),
     (aux_sym_bool_literal_with_string_token1, 2784),
     (aux_sym_bool_literal_with_string_token2, 2782),
     (aux_sym_bool_literal_with_string_token3, 2782), (sym_s_byte_char_str, 2784),
     (sym_d_byte_char_str, 2784), (aux_sym_time_token1, 2784), (anon_sym_PLUS, 2732),
     (anon_sym_DASH, 2732), (aux_sym_ltime_token1, 2784), (aux_sym_tod_token1, 2784),
     (aux_sym_ltod_token1, 2784), (aux_sym_short_date_token1, 2784),
     (aux_sym_long_date_token1, 2784), (aux_sym_short_date_and_time_token1, 2784),
     (aux_sym_long_date_and_time_token1, 2784), (aux_sym_sign_int_type_name_token1, 2782),
     (aux_sym_sign_int_type_name_token2, 2782), (aux_sym_sign_int_type_name_token3, 2782),
     (aux_sym_sign_int_type_name_token4, 2782), (aux_sym_unsign_int_type_name_token1, 2782),
     (aux_sym_unsign_int_type_name_token2, 2782), (aux_sym_unsign_int_type_name_token3, 2782),
     (aux_sym_unsign_int_type_name_token4, 2782), (aux_sym_real_type_name_token1, 2782),
     (aux_sym_real_type_name_token2, 2782), (aux_sym_string_name_token1, 2782),
     (aux_sym_char_name_token1, 2782), (aux_sym_multibits_type_name_token1, 2782),
     (aux_sym_multibits_type_name_token2, 2782), (aux_sym_multibits_type_name_token3, 2782),
     (aux_sym_multibits_type_name_token4, 2782), (anon_sym_SEMI, 2784), (anon_sym_PERCENT, 2784),
     (anon_sym_STAR, 2734), (aux_sym_ref_value_token1, 2782), (aux_sym_ref_addr_token1, 2782),
     (anon_sym_DOT_DOT_DOT, 2784), (aux_sym_method_decl_token1, 2782), (anon_sym_SLASH, 2734),
     (anon_sym_STAR_STAR, 2736), (anon_sym_AMP, 2784), (anon_sym_LT_GT, 2784), (anon_sym_LT, 2782),
     (anon_sym_GT, 2782), (anon_sym_LT_EQ, 2784), (anon_sym_GT_EQ, 2784),
     (aux_sym_or_operator_token1, 2782), (aux_sym_xor_operator_token1, 2782),
     (aux_sym_and_operator_token1, 2782), (aux_sym_mult_token1, 2734), (aux_sym_unary_token1, 2782),
     (aux_sym__stmt_token1, 2782), (aux_sym__stmt_token2, 2782), (aux_sym__stmt_token3, 2782),
     (aux_sym_if_stmt_token1, 2782), (aux_sym_if_stmt_token3, 2782),
     (aux_sym_case_stmt_token1, 2782), (aux_sym_case_stmt_token2, 2782),
     (aux_sym_for_stmt_token1, 2782), (aux_sym_while_stmt_token1, 2782),
     (aux_sym_repeat_stmt_token1, 2782), (aux_sym_raise_stmt_token1, 2782),
     (aux_sym_try_stmt_token1, 2782), (aux_sym_try_stmt_token2, 2782),
     (aux_sym_catch_clause_token1, 2782), (aux_sym_finally_clause_token1, 2782),
     (sym_c_style_comment, 3), (sym_pascal_style_comment, 3), (sym_pragma, 3),
     (sym__minus_before_base, 2784), (sym__plus_before_base, 2784)]"

lemma ts_parse_row_1125_scan: "row_scan tokens_2_1 0 ts_parse_row_1125 = Some (Suc (Suc (Suc (Suc (Suc (Suc 0))))))"
  unfolding ts_parse_row_1125_def by simp

text \<open>Lines 180203 to 180297.\<close>

definition ts_parse_row_1126 :: parse_row where
  "ts_parse_row_1126 =
    [(sym_eq, 69), (sym_ord, 70), (sym_add, 71), (sym_mult, 72), (sym_identifier, 2786),
     (anon_sym_EQ, 2788), (aux_sym_ERR_unexpected_this_in_path_token1, 2786),
     (aux_sym_ERR_unexpected_super_in_path_token1, 2786), (sym_line_comment, 3),
     (anon_sym_LBRACE, 2786), (anon_sym_LPAREN, 2788), (aux_sym_test_pragma_token1, 2788),
     (aux_sym_once_pragma_token1, 2788), (aux_sym_must_call_pragma_token1, 2788),
     (aux_sym_export_pragma_token1, 2788), (sym_unsigned_int, 2786),
     (sym__explicit_signed_int, 2786), (sym_binary_int, 2788), (sym_octal_int, 2788),
     (sym_hex_int, 2788), (sym__explicit_signed_real, 2788), (sym_real_value, 2788),
     (aux_sym_bool_literal_with_string_token1, 2788),
     (aux_sym_bool_literal_with_string_token2, 2786),
     (aux_sym_bool_literal_with_string_token3, 2786), (sym_s_byte_char_str, 2788),
     (sym_d_byte_char_str, 2788), (aux_sym_time_token1, 2788), (anon_sym_PLUS, 2786),
     (anon_sym_DASH, 2786), (aux_sym_ltime_token1, 2788), (aux_sym_tod_token1, 2788),
     (aux_sym_ltod_token1, 2788), (aux_sym_short_date_token1, 2788),
     (aux_sym_long_date_token1, 2788), (aux_sym_short_date_and_time_token1, 2788),
     (aux_sym_long_date_and_time_token1, 2788), (aux_sym_sign_int_type_name_token1, 2786),
     (aux_sym_sign_int_type_name_token2, 2786), (aux_sym_sign_int_type_name_token3, 2786),
     (aux_sym_sign_int_type_name_token4, 2786), (aux_sym_unsign_int_type_name_token1, 2786),
     (aux_sym_unsign_int_type_name_token2, 2786), (aux_sym_unsign_int_type_name_token3, 2786),
     (aux_sym_unsign_int_type_name_token4, 2786), (aux_sym_real_type_name_token1, 2786),
     (aux_sym_real_type_name_token2, 2786), (aux_sym_string_name_token1, 2786),
     (aux_sym_char_name_token1, 2786), (aux_sym_multibits_type_name_token1, 2786),
     (aux_sym_multibits_type_name_token2, 2786), (aux_sym_multibits_type_name_token3, 2786),
     (aux_sym_multibits_type_name_token4, 2786), (anon_sym_SEMI, 2788), (anon_sym_PERCENT, 2788),
     (anon_sym_STAR, 2734), (aux_sym_ref_value_token1, 2786), (aux_sym_ref_addr_token1, 2786),
     (anon_sym_DOT_DOT_DOT, 2788), (aux_sym_method_decl_token1, 2786), (anon_sym_SLASH, 2734),
     (anon_sym_STAR_STAR, 2736), (anon_sym_AMP, 2788), (anon_sym_LT_GT, 2788), (anon_sym_LT, 2786),
     (anon_sym_GT, 2786), (anon_sym_LT_EQ, 2788), (anon_sym_GT_EQ, 2788),
     (aux_sym_or_operator_token1, 2786), (aux_sym_xor_operator_token1, 2786),
     (aux_sym_and_operator_token1, 2786), (aux_sym_mult_token1, 2734), (aux_sym_unary_token1, 2786),
     (aux_sym__stmt_token1, 2786), (aux_sym__stmt_token2, 2786), (aux_sym__stmt_token3, 2786),
     (aux_sym_if_stmt_token1, 2786), (aux_sym_if_stmt_token3, 2786),
     (aux_sym_case_stmt_token1, 2786), (aux_sym_case_stmt_token2, 2786),
     (aux_sym_for_stmt_token1, 2786), (aux_sym_while_stmt_token1, 2786),
     (aux_sym_repeat_stmt_token1, 2786), (aux_sym_raise_stmt_token1, 2786),
     (aux_sym_try_stmt_token1, 2786), (aux_sym_try_stmt_token2, 2786),
     (aux_sym_catch_clause_token1, 2786), (aux_sym_finally_clause_token1, 2786),
     (sym_c_style_comment, 3), (sym_pascal_style_comment, 3), (sym_pragma, 3),
     (sym__minus_before_base, 2788), (sym__plus_before_base, 2788)]"

lemma ts_parse_row_1126_scan: "row_scan tokens_2_1 0 ts_parse_row_1126 = Some (Suc (Suc (Suc (Suc (Suc (Suc 0))))))"
  unfolding ts_parse_row_1126_def by simp

text \<open>Lines 180298 to 180392.\<close>

definition ts_parse_row_1127 :: parse_row where
  "ts_parse_row_1127 =
    [(sym_eq, 69), (sym_ord, 70), (sym_add, 71), (sym_mult, 72), (sym_identifier, 2790),
     (anon_sym_EQ, 2792), (aux_sym_ERR_unexpected_this_in_path_token1, 2790),
     (aux_sym_ERR_unexpected_super_in_path_token1, 2790), (sym_line_comment, 3),
     (anon_sym_LBRACE, 2790), (anon_sym_LPAREN, 2792), (aux_sym_test_pragma_token1, 2792),
     (aux_sym_once_pragma_token1, 2792), (aux_sym_must_call_pragma_token1, 2792),
     (aux_sym_export_pragma_token1, 2792), (sym_unsigned_int, 2790),
     (sym__explicit_signed_int, 2790), (sym_binary_int, 2792), (sym_octal_int, 2792),
     (sym_hex_int, 2792), (sym__explicit_signed_real, 2792), (sym_real_value, 2792),
     (aux_sym_bool_literal_with_string_token1, 2792),
     (aux_sym_bool_literal_with_string_token2, 2790),
     (aux_sym_bool_literal_with_string_token3, 2790), (sym_s_byte_char_str, 2792),
     (sym_d_byte_char_str, 2792), (aux_sym_time_token1, 2792), (anon_sym_PLUS, 2790),
     (anon_sym_DASH, 2790), (aux_sym_ltime_token1, 2792), (aux_sym_tod_token1, 2792),
     (aux_sym_ltod_token1, 2792), (aux_sym_short_date_token1, 2792),
     (aux_sym_long_date_token1, 2792), (aux_sym_short_date_and_time_token1, 2792),
     (aux_sym_long_date_and_time_token1, 2792), (aux_sym_sign_int_type_name_token1, 2790),
     (aux_sym_sign_int_type_name_token2, 2790), (aux_sym_sign_int_type_name_token3, 2790),
     (aux_sym_sign_int_type_name_token4, 2790), (aux_sym_unsign_int_type_name_token1, 2790),
     (aux_sym_unsign_int_type_name_token2, 2790), (aux_sym_unsign_int_type_name_token3, 2790),
     (aux_sym_unsign_int_type_name_token4, 2790), (aux_sym_real_type_name_token1, 2790),
     (aux_sym_real_type_name_token2, 2790), (aux_sym_string_name_token1, 2790),
     (aux_sym_char_name_token1, 2790), (aux_sym_multibits_type_name_token1, 2790),
     (aux_sym_multibits_type_name_token2, 2790), (aux_sym_multibits_type_name_token3, 2790),
     (aux_sym_multibits_type_name_token4, 2790), (anon_sym_SEMI, 2792), (anon_sym_PERCENT, 2792),
     (anon_sym_STAR, 2790), (aux_sym_ref_value_token1, 2790), (aux_sym_ref_addr_token1, 2790),
     (anon_sym_DOT_DOT_DOT, 2792), (aux_sym_method_decl_token1, 2790), (anon_sym_SLASH, 2790),
     (anon_sym_STAR_STAR, 2736), (anon_sym_AMP, 2792), (anon_sym_LT_GT, 2792), (anon_sym_LT, 2790),
     (anon_sym_GT, 2790), (anon_sym_LT_EQ, 2792), (anon_sym_GT_EQ, 2792),
     (aux_sym_or_operator_token1, 2790), (aux_sym_xor_operator_token1, 2790),
     (aux_sym_and_operator_token1, 2790), (aux_sym_mult_token1, 2790), (aux_sym_unary_token1, 2790),
     (aux_sym__stmt_token1, 2790), (aux_sym__stmt_token2, 2790), (aux_sym__stmt_token3, 2790),
     (aux_sym_if_stmt_token1, 2790), (aux_sym_if_stmt_token3, 2790),
     (aux_sym_case_stmt_token1, 2790), (aux_sym_case_stmt_token2, 2790),
     (aux_sym_for_stmt_token1, 2790), (aux_sym_while_stmt_token1, 2790),
     (aux_sym_repeat_stmt_token1, 2790), (aux_sym_raise_stmt_token1, 2790),
     (aux_sym_try_stmt_token1, 2790), (aux_sym_try_stmt_token2, 2790),
     (aux_sym_catch_clause_token1, 2790), (aux_sym_finally_clause_token1, 2790),
     (sym_c_style_comment, 3), (sym_pascal_style_comment, 3), (sym_pragma, 3),
     (sym__minus_before_base, 2792), (sym__plus_before_base, 2792)]"

lemma ts_parse_row_1127_scan: "row_scan tokens_2_1 0 ts_parse_row_1127 = Some (Suc (Suc (Suc (Suc (Suc (Suc 0))))))"
  unfolding ts_parse_row_1127_def by simp

text \<open>Lines 180393 to 180487.\<close>

definition ts_parse_row_1128 :: parse_row where
  "ts_parse_row_1128 =
    [(sym_identifier, 2794), (anon_sym_EQ, 2796),
     (aux_sym_ERR_unexpected_this_in_path_token1, 2794),
     (aux_sym_ERR_unexpected_super_in_path_token1, 2794), (sym_line_comment, 3),
     (anon_sym_LBRACE, 2794), (anon_sym_LPAREN, 2796), (aux_sym_test_pragma_token1, 2796),
     (aux_sym_once_pragma_token1, 2796), (aux_sym_must_call_pragma_token1, 2796),
     (aux_sym_export_pragma_token1, 2796), (anon_sym_POUND, 2796), (sym_unsigned_int, 2794),
     (sym__explicit_signed_int, 2794), (sym_binary_int, 2796), (sym_octal_int, 2796),
     (sym_hex_int, 2796), (sym__explicit_signed_real, 2796), (sym_real_value, 2796),
     (aux_sym_bool_literal_with_string_token1, 2796),
     (aux_sym_bool_literal_with_string_token2, 2794),
     (aux_sym_bool_literal_with_string_token3, 2794), (sym_s_byte_char_str, 2796),
     (sym_d_byte_char_str, 2796), (aux_sym_time_token1, 2796), (anon_sym_PLUS, 2794),
     (anon_sym_DASH, 2794), (aux_sym_ltime_token1, 2796), (aux_sym_tod_token1, 2796),
     (aux_sym_ltod_token1, 2796), (aux_sym_short_date_token1, 2796),
     (aux_sym_long_date_token1, 2796), (aux_sym_short_date_and_time_token1, 2796),
     (aux_sym_long_date_and_time_token1, 2796), (aux_sym_sign_int_type_name_token1, 2794),
     (aux_sym_sign_int_type_name_token2, 2794), (aux_sym_sign_int_type_name_token3, 2794),
     (aux_sym_sign_int_type_name_token4, 2794), (aux_sym_unsign_int_type_name_token1, 2794),
     (aux_sym_unsign_int_type_name_token2, 2794), (aux_sym_unsign_int_type_name_token3, 2794),
     (aux_sym_unsign_int_type_name_token4, 2794), (aux_sym_real_type_name_token1, 2794),
     (aux_sym_real_type_name_token2, 2794), (aux_sym_string_name_token1, 2794),
     (anon_sym_LBRACK, 2796), (aux_sym_char_name_token1, 2794),
     (aux_sym_multibits_type_name_token1, 2794), (aux_sym_multibits_type_name_token2, 2794),
     (aux_sym_multibits_type_name_token3, 2794), (aux_sym_multibits_type_name_token4, 2794),
     (anon_sym_SEMI, 2796), (anon_sym_PERCENT, 2796), (anon_sym_STAR, 2794), (anon_sym_DOT, 2794),
     (aux_sym_ref_value_token1, 2794), (aux_sym_ref_addr_token1, 2794), (anon_sym_CARET, 2796),
     (anon_sym_DOT_DOT_DOT, 2796), (aux_sym_method_decl_token1, 2794), (anon_sym_SLASH, 2794),
     (anon_sym_STAR_STAR, 2796), (anon_sym_AMP, 2796), (anon_sym_LT_GT, 2796), (anon_sym_LT, 2794),
     (anon_sym_GT, 2794), (anon_sym_LT_EQ, 2796), (anon_sym_GT_EQ, 2796),
     (aux_sym_or_operator_token1, 2794), (aux_sym_xor_operator_token1, 2794),
     (aux_sym_and_operator_token1, 2794), (aux_sym_mult_token1, 2794), (aux_sym_unary_token1, 2794),
     (aux_sym__stmt_token1, 2794), (aux_sym__stmt_token2, 2794), (aux_sym__stmt_token3, 2794),
     (aux_sym_if_stmt_token1, 2794), (aux_sym_if_stmt_token3, 2794),
     (aux_sym_case_stmt_token1, 2794), (aux_sym_case_stmt_token2, 2794),
     (aux_sym_for_stmt_token1, 2794), (aux_sym_while_stmt_token1, 2794),
     (aux_sym_repeat_stmt_token1, 2794), (aux_sym_raise_stmt_token1, 2794),
     (aux_sym_try_stmt_token1, 2794), (aux_sym_try_stmt_token2, 2794),
     (aux_sym_catch_clause_token1, 2794), (aux_sym_finally_clause_token1, 2794),
     (sym_c_style_comment, 3), (sym_pascal_style_comment, 3), (sym_pragma, 3),
     (sym__minus_before_base, 2796), (sym__plus_before_base, 2796)]"

lemma ts_parse_row_1128_scan: "row_scan tokens_2_1 0 ts_parse_row_1128 = Some (Suc (Suc (Suc (Suc (Suc (Suc 0))))))"
  unfolding ts_parse_row_1128_def by simp

text \<open>Lines 180488 to 180582.\<close>

definition ts_parse_row_1129 :: parse_row where
  "ts_parse_row_1129 =
    [(sym_identifier, 2798), (anon_sym_EQ, 2800),
     (aux_sym_ERR_unexpected_this_in_path_token1, 2798),
     (aux_sym_ERR_unexpected_super_in_path_token1, 2798), (sym_line_comment, 3),
     (anon_sym_LBRACE, 2798), (anon_sym_LPAREN, 2800), (aux_sym_test_pragma_token1, 2800),
     (aux_sym_once_pragma_token1, 2800), (aux_sym_must_call_pragma_token1, 2800),
     (aux_sym_export_pragma_token1, 2800), (anon_sym_POUND, 2800), (sym_unsigned_int, 2798),
     (sym__explicit_signed_int, 2798), (sym_binary_int, 2800), (sym_octal_int, 2800),
     (sym_hex_int, 2800), (sym__explicit_signed_real, 2800), (sym_real_value, 2800),
     (aux_sym_bool_literal_with_string_token1, 2800),
     (aux_sym_bool_literal_with_string_token2, 2798),
     (aux_sym_bool_literal_with_string_token3, 2798), (sym_s_byte_char_str, 2800),
     (sym_d_byte_char_str, 2800), (aux_sym_time_token1, 2800), (anon_sym_PLUS, 2798),
     (anon_sym_DASH, 2798), (aux_sym_ltime_token1, 2800), (aux_sym_tod_token1, 2800),
     (aux_sym_ltod_token1, 2800), (aux_sym_short_date_token1, 2800),
     (aux_sym_long_date_token1, 2800), (aux_sym_short_date_and_time_token1, 2800),
     (aux_sym_long_date_and_time_token1, 2800), (aux_sym_sign_int_type_name_token1, 2798),
     (aux_sym_sign_int_type_name_token2, 2798), (aux_sym_sign_int_type_name_token3, 2798),
     (aux_sym_sign_int_type_name_token4, 2798), (aux_sym_unsign_int_type_name_token1, 2798),
     (aux_sym_unsign_int_type_name_token2, 2798), (aux_sym_unsign_int_type_name_token3, 2798),
     (aux_sym_unsign_int_type_name_token4, 2798), (aux_sym_real_type_name_token1, 2798),
     (aux_sym_real_type_name_token2, 2798), (aux_sym_string_name_token1, 2798),
     (anon_sym_LBRACK, 2796), (aux_sym_char_name_token1, 2798),
     (aux_sym_multibits_type_name_token1, 2798), (aux_sym_multibits_type_name_token2, 2798),
     (aux_sym_multibits_type_name_token3, 2798), (aux_sym_multibits_type_name_token4, 2798),
     (anon_sym_SEMI, 2800), (anon_sym_PERCENT, 2800), (anon_sym_STAR, 2798), (anon_sym_DOT, 2798),
     (aux_sym_ref_value_token1, 2798), (aux_sym_ref_addr_token1, 2798), (anon_sym_CARET, 2800),
     (anon_sym_DOT_DOT_DOT, 2800), (aux_sym_method_decl_token1, 2798), (anon_sym_SLASH, 2798),
     (anon_sym_STAR_STAR, 2800), (anon_sym_AMP, 2800), (anon_sym_LT_GT, 2800), (anon_sym_LT, 2798),
     (anon_sym_GT, 2798), (anon_sym_LT_EQ, 2800), (anon_sym_GT_EQ, 2800),
     (aux_sym_or_operator_token1, 2798), (aux_sym_xor_operator_token1, 2798),
     (aux_sym_and_operator_token1, 2798), (aux_sym_mult_token1, 2798), (aux_sym_unary_token1, 2798),
     (aux_sym__stmt_token1, 2798), (aux_sym__stmt_token2, 2798), (aux_sym__stmt_token3, 2798),
     (aux_sym_if_stmt_token1, 2798), (aux_sym_if_stmt_token3, 2798),
     (aux_sym_case_stmt_token1, 2798), (aux_sym_case_stmt_token2, 2798),
     (aux_sym_for_stmt_token1, 2798), (aux_sym_while_stmt_token1, 2798),
     (aux_sym_repeat_stmt_token1, 2798), (aux_sym_raise_stmt_token1, 2798),
     (aux_sym_try_stmt_token1, 2798), (aux_sym_try_stmt_token2, 2798),
     (aux_sym_catch_clause_token1, 2798), (aux_sym_finally_clause_token1, 2798),
     (sym_c_style_comment, 3), (sym_pascal_style_comment, 3), (sym_pragma, 3),
     (sym__minus_before_base, 2800), (sym__plus_before_base, 2800)]"

lemma ts_parse_row_1129_scan: "row_scan tokens_2_1 0 ts_parse_row_1129 = Some (Suc (Suc (Suc (Suc (Suc (Suc 0))))))"
  unfolding ts_parse_row_1129_def by simp

text \<open>Lines 180583 to 180677.\<close>

definition ts_parse_row_1130 :: parse_row where
  "ts_parse_row_1130 =
    [(sym_identifier, 2802), (anon_sym_EQ, 2804),
     (aux_sym_ERR_unexpected_this_in_path_token1, 2802),
     (aux_sym_ERR_unexpected_super_in_path_token1, 2802), (sym_line_comment, 3),
     (anon_sym_LBRACE, 2802), (anon_sym_LPAREN, 2804), (aux_sym_test_pragma_token1, 2804),
     (aux_sym_once_pragma_token1, 2804), (aux_sym_must_call_pragma_token1, 2804),
     (aux_sym_export_pragma_token1, 2804), (anon_sym_POUND, 2804), (sym_unsigned_int, 2802),
     (sym__explicit_signed_int, 2802), (sym_binary_int, 2804), (sym_octal_int, 2804),
     (sym_hex_int, 2804), (sym__explicit_signed_real, 2804), (sym_real_value, 2804),
     (aux_sym_bool_literal_with_string_token1, 2804),
     (aux_sym_bool_literal_with_string_token2, 2802),
     (aux_sym_bool_literal_with_string_token3, 2802), (sym_s_byte_char_str, 2804),
     (sym_d_byte_char_str, 2804), (aux_sym_time_token1, 2804), (anon_sym_PLUS, 2802),
     (anon_sym_DASH, 2802), (aux_sym_ltime_token1, 2804), (aux_sym_tod_token1, 2804),
     (aux_sym_ltod_token1, 2804), (aux_sym_short_date_token1, 2804),
     (aux_sym_long_date_token1, 2804), (aux_sym_short_date_and_time_token1, 2804),
     (aux_sym_long_date_and_time_token1, 2804), (aux_sym_sign_int_type_name_token1, 2802),
     (aux_sym_sign_int_type_name_token2, 2802), (aux_sym_sign_int_type_name_token3, 2802),
     (aux_sym_sign_int_type_name_token4, 2802), (aux_sym_unsign_int_type_name_token1, 2802),
     (aux_sym_unsign_int_type_name_token2, 2802), (aux_sym_unsign_int_type_name_token3, 2802),
     (aux_sym_unsign_int_type_name_token4, 2802), (aux_sym_real_type_name_token1, 2802),
     (aux_sym_real_type_name_token2, 2802), (aux_sym_string_name_token1, 2802),
     (anon_sym_LBRACK, 2804), (aux_sym_char_name_token1, 2802),
     (aux_sym_multibits_type_name_token1, 2802), (aux_sym_multibits_type_name_token2, 2802),
     (aux_sym_multibits_type_name_token3, 2802), (aux_sym_multibits_type_name_token4, 2802),
     (anon_sym_SEMI, 2804), (anon_sym_PERCENT, 2804), (anon_sym_STAR, 2802), (anon_sym_DOT, 2802),
     (aux_sym_ref_value_token1, 2802), (aux_sym_ref_addr_token1, 2802), (anon_sym_CARET, 2804),
     (anon_sym_DOT_DOT_DOT, 2804), (aux_sym_method_decl_token1, 2802), (anon_sym_SLASH, 2802),
     (anon_sym_STAR_STAR, 2804), (anon_sym_AMP, 2804), (anon_sym_LT_GT, 2804), (anon_sym_LT, 2802),
     (anon_sym_GT, 2802), (anon_sym_LT_EQ, 2804), (anon_sym_GT_EQ, 2804),
     (aux_sym_or_operator_token1, 2802), (aux_sym_xor_operator_token1, 2802),
     (aux_sym_and_operator_token1, 2802), (aux_sym_mult_token1, 2802), (aux_sym_unary_token1, 2802),
     (aux_sym__stmt_token1, 2802), (aux_sym__stmt_token2, 2802), (aux_sym__stmt_token3, 2802),
     (aux_sym_if_stmt_token1, 2802), (aux_sym_if_stmt_token3, 2802),
     (aux_sym_case_stmt_token1, 2802), (aux_sym_case_stmt_token2, 2802),
     (aux_sym_for_stmt_token1, 2802), (aux_sym_while_stmt_token1, 2802),
     (aux_sym_repeat_stmt_token1, 2802), (aux_sym_raise_stmt_token1, 2802),
     (aux_sym_try_stmt_token1, 2802), (aux_sym_try_stmt_token2, 2802),
     (aux_sym_catch_clause_token1, 2802), (aux_sym_finally_clause_token1, 2802),
     (sym_c_style_comment, 3), (sym_pascal_style_comment, 3), (sym_pragma, 3),
     (sym__minus_before_base, 2804), (sym__plus_before_base, 2804)]"

lemma ts_parse_row_1130_scan: "row_scan tokens_2_1 0 ts_parse_row_1130 = Some (Suc (Suc (Suc (Suc (Suc (Suc 0))))))"
  unfolding ts_parse_row_1130_def by simp

text \<open>Lines 180678 to 180772.\<close>

definition ts_parse_row_1131 :: parse_row where
  "ts_parse_row_1131 =
    [(sym_identifier, 2806), (anon_sym_EQ, 2808),
     (aux_sym_ERR_unexpected_this_in_path_token1, 2806),
     (aux_sym_ERR_unexpected_super_in_path_token1, 2806), (sym_line_comment, 3),
     (anon_sym_LBRACE, 2806), (anon_sym_LPAREN, 2808), (aux_sym_test_pragma_token1, 2808),
     (aux_sym_once_pragma_token1, 2808), (aux_sym_must_call_pragma_token1, 2808),
     (aux_sym_export_pragma_token1, 2808), (anon_sym_POUND, 2808), (sym_unsigned_int, 2806),
     (sym__explicit_signed_int, 2806), (sym_binary_int, 2808), (sym_octal_int, 2808),
     (sym_hex_int, 2808), (sym__explicit_signed_real, 2808), (sym_real_value, 2808),
     (aux_sym_bool_literal_with_string_token1, 2808),
     (aux_sym_bool_literal_with_string_token2, 2806),
     (aux_sym_bool_literal_with_string_token3, 2806), (sym_s_byte_char_str, 2808),
     (sym_d_byte_char_str, 2808), (aux_sym_time_token1, 2808), (anon_sym_PLUS, 2806),
     (anon_sym_DASH, 2806), (aux_sym_ltime_token1, 2808), (aux_sym_tod_token1, 2808),
     (aux_sym_ltod_token1, 2808), (aux_sym_short_date_token1, 2808),
     (aux_sym_long_date_token1, 2808), (aux_sym_short_date_and_time_token1, 2808),
     (aux_sym_long_date_and_time_token1, 2808), (aux_sym_sign_int_type_name_token1, 2806),
     (aux_sym_sign_int_type_name_token2, 2806), (aux_sym_sign_int_type_name_token3, 2806),
     (aux_sym_sign_int_type_name_token4, 2806), (aux_sym_unsign_int_type_name_token1, 2806),
     (aux_sym_unsign_int_type_name_token2, 2806), (aux_sym_unsign_int_type_name_token3, 2806),
     (aux_sym_unsign_int_type_name_token4, 2806), (aux_sym_real_type_name_token1, 2806),
     (aux_sym_real_type_name_token2, 2806), (aux_sym_string_name_token1, 2806),
     (anon_sym_LBRACK, 2808), (aux_sym_char_name_token1, 2806),
     (aux_sym_multibits_type_name_token1, 2806), (aux_sym_multibits_type_name_token2, 2806),
     (aux_sym_multibits_type_name_token3, 2806), (aux_sym_multibits_type_name_token4, 2806),
     (anon_sym_SEMI, 2808), (anon_sym_PERCENT, 2808), (anon_sym_STAR, 2806), (anon_sym_DOT, 2806),
     (aux_sym_ref_value_token1, 2806), (aux_sym_ref_addr_token1, 2806), (anon_sym_CARET, 2808),
     (anon_sym_DOT_DOT_DOT, 2808), (aux_sym_method_decl_token1, 2806), (anon_sym_SLASH, 2806),
     (anon_sym_STAR_STAR, 2808), (anon_sym_AMP, 2808), (anon_sym_LT_GT, 2808), (anon_sym_LT, 2806),
     (anon_sym_GT, 2806), (anon_sym_LT_EQ, 2808), (anon_sym_GT_EQ, 2808),
     (aux_sym_or_operator_token1, 2806), (aux_sym_xor_operator_token1, 2806),
     (aux_sym_and_operator_token1, 2806), (aux_sym_mult_token1, 2806), (aux_sym_unary_token1, 2806),
     (aux_sym__stmt_token1, 2806), (aux_sym__stmt_token2, 2806), (aux_sym__stmt_token3, 2806),
     (aux_sym_if_stmt_token1, 2806), (aux_sym_if_stmt_token3, 2806),
     (aux_sym_case_stmt_token1, 2806), (aux_sym_case_stmt_token2, 2806),
     (aux_sym_for_stmt_token1, 2806), (aux_sym_while_stmt_token1, 2806),
     (aux_sym_repeat_stmt_token1, 2806), (aux_sym_raise_stmt_token1, 2806),
     (aux_sym_try_stmt_token1, 2806), (aux_sym_try_stmt_token2, 2806),
     (aux_sym_catch_clause_token1, 2806), (aux_sym_finally_clause_token1, 2806),
     (sym_c_style_comment, 3), (sym_pascal_style_comment, 3), (sym_pragma, 3),
     (sym__minus_before_base, 2808), (sym__plus_before_base, 2808)]"

lemma ts_parse_row_1131_scan: "row_scan tokens_2_1 0 ts_parse_row_1131 = Some (Suc (Suc (Suc (Suc (Suc (Suc 0))))))"
  unfolding ts_parse_row_1131_def by simp

text \<open>Lines 180773 to 180867.\<close>

definition ts_parse_row_1132 :: parse_row where
  "ts_parse_row_1132 =
    [(sym_identifier, 2810), (anon_sym_EQ, 2812),
     (aux_sym_ERR_unexpected_this_in_path_token1, 2810),
     (aux_sym_ERR_unexpected_super_in_path_token1, 2810), (sym_line_comment, 3),
     (anon_sym_LBRACE, 2810), (anon_sym_LPAREN, 2812), (aux_sym_test_pragma_token1, 2812),
     (aux_sym_once_pragma_token1, 2812), (aux_sym_must_call_pragma_token1, 2812),
     (aux_sym_export_pragma_token1, 2812), (anon_sym_POUND, 2812), (sym_unsigned_int, 2810),
     (sym__explicit_signed_int, 2810), (sym_binary_int, 2812), (sym_octal_int, 2812),
     (sym_hex_int, 2812), (sym__explicit_signed_real, 2812), (sym_real_value, 2812),
     (aux_sym_bool_literal_with_string_token1, 2812),
     (aux_sym_bool_literal_with_string_token2, 2810),
     (aux_sym_bool_literal_with_string_token3, 2810), (sym_s_byte_char_str, 2812),
     (sym_d_byte_char_str, 2812), (aux_sym_time_token1, 2812), (anon_sym_PLUS, 2810),
     (anon_sym_DASH, 2810), (aux_sym_ltime_token1, 2812), (aux_sym_tod_token1, 2812),
     (aux_sym_ltod_token1, 2812), (aux_sym_short_date_token1, 2812),
     (aux_sym_long_date_token1, 2812), (aux_sym_short_date_and_time_token1, 2812),
     (aux_sym_long_date_and_time_token1, 2812), (aux_sym_sign_int_type_name_token1, 2810),
     (aux_sym_sign_int_type_name_token2, 2810), (aux_sym_sign_int_type_name_token3, 2810),
     (aux_sym_sign_int_type_name_token4, 2810), (aux_sym_unsign_int_type_name_token1, 2810),
     (aux_sym_unsign_int_type_name_token2, 2810), (aux_sym_unsign_int_type_name_token3, 2810),
     (aux_sym_unsign_int_type_name_token4, 2810), (aux_sym_real_type_name_token1, 2810),
     (aux_sym_real_type_name_token2, 2810), (aux_sym_string_name_token1, 2810),
     (anon_sym_LBRACK, 2812), (aux_sym_char_name_token1, 2810),
     (aux_sym_multibits_type_name_token1, 2810), (aux_sym_multibits_type_name_token2, 2810),
     (aux_sym_multibits_type_name_token3, 2810), (aux_sym_multibits_type_name_token4, 2810),
     (anon_sym_SEMI, 2812), (anon_sym_PERCENT, 2812), (anon_sym_STAR, 2810), (anon_sym_DOT, 2810),
     (aux_sym_ref_value_token1, 2810), (aux_sym_ref_addr_token1, 2810), (anon_sym_CARET, 2812),
     (anon_sym_DOT_DOT_DOT, 2812), (aux_sym_method_decl_token1, 2810), (anon_sym_SLASH, 2810),
     (anon_sym_STAR_STAR, 2812), (anon_sym_AMP, 2812), (anon_sym_LT_GT, 2812), (anon_sym_LT, 2810),
     (anon_sym_GT, 2810), (anon_sym_LT_EQ, 2812), (anon_sym_GT_EQ, 2812),
     (aux_sym_or_operator_token1, 2810), (aux_sym_xor_operator_token1, 2810),
     (aux_sym_and_operator_token1, 2810), (aux_sym_mult_token1, 2810), (aux_sym_unary_token1, 2810),
     (aux_sym__stmt_token1, 2810), (aux_sym__stmt_token2, 2810), (aux_sym__stmt_token3, 2810),
     (aux_sym_if_stmt_token1, 2810), (aux_sym_if_stmt_token3, 2810),
     (aux_sym_case_stmt_token1, 2810), (aux_sym_case_stmt_token2, 2810),
     (aux_sym_for_stmt_token1, 2810), (aux_sym_while_stmt_token1, 2810),
     (aux_sym_repeat_stmt_token1, 2810), (aux_sym_raise_stmt_token1, 2810),
     (aux_sym_try_stmt_token1, 2810), (aux_sym_try_stmt_token2, 2810),
     (aux_sym_catch_clause_token1, 2810), (aux_sym_finally_clause_token1, 2810),
     (sym_c_style_comment, 3), (sym_pascal_style_comment, 3), (sym_pragma, 3),
     (sym__minus_before_base, 2812), (sym__plus_before_base, 2812)]"

lemma ts_parse_row_1132_scan: "row_scan tokens_2_1 0 ts_parse_row_1132 = Some (Suc (Suc (Suc (Suc (Suc (Suc 0))))))"
  unfolding ts_parse_row_1132_def by simp

text \<open>Lines 180868 to 180962.\<close>

definition ts_parse_row_1133 :: parse_row where
  "ts_parse_row_1133 =
    [(sym_identifier, 2814), (anon_sym_EQ, 2816),
     (aux_sym_ERR_unexpected_this_in_path_token1, 2814),
     (aux_sym_ERR_unexpected_super_in_path_token1, 2814), (sym_line_comment, 3),
     (anon_sym_LBRACE, 2814), (anon_sym_LPAREN, 2816), (aux_sym_test_pragma_token1, 2816),
     (aux_sym_once_pragma_token1, 2816), (aux_sym_must_call_pragma_token1, 2816),
     (aux_sym_export_pragma_token1, 2816), (anon_sym_POUND, 2816), (sym_unsigned_int, 2814),
     (sym__explicit_signed_int, 2814), (sym_binary_int, 2816), (sym_octal_int, 2816),
     (sym_hex_int, 2816), (sym__explicit_signed_real, 2816), (sym_real_value, 2816),
     (aux_sym_bool_literal_with_string_token1, 2816),
     (aux_sym_bool_literal_with_string_token2, 2814),
     (aux_sym_bool_literal_with_string_token3, 2814), (sym_s_byte_char_str, 2816),
     (sym_d_byte_char_str, 2816), (aux_sym_time_token1, 2816), (anon_sym_PLUS, 2814),
     (anon_sym_DASH, 2814), (aux_sym_ltime_token1, 2816), (aux_sym_tod_token1, 2816),
     (aux_sym_ltod_token1, 2816), (aux_sym_short_date_token1, 2816),
     (aux_sym_long_date_token1, 2816), (aux_sym_short_date_and_time_token1, 2816),
     (aux_sym_long_date_and_time_token1, 2816), (aux_sym_sign_int_type_name_token1, 2814),
     (aux_sym_sign_int_type_name_token2, 2814), (aux_sym_sign_int_type_name_token3, 2814),
     (aux_sym_sign_int_type_name_token4, 2814), (aux_sym_unsign_int_type_name_token1, 2814),
     (aux_sym_unsign_int_type_name_token2, 2814), (aux_sym_unsign_int_type_name_token3, 2814),
     (aux_sym_unsign_int_type_name_token4, 2814), (aux_sym_real_type_name_token1, 2814),
     (aux_sym_real_type_name_token2, 2814), (aux_sym_string_name_token1, 2814),
     (anon_sym_LBRACK, 2816), (aux_sym_char_name_token1, 2814),
     (aux_sym_multibits_type_name_token1, 2814), (aux_sym_multibits_type_name_token2, 2814),
     (aux_sym_multibits_type_name_token3, 2814), (aux_sym_multibits_type_name_token4, 2814),
     (anon_sym_SEMI, 2816), (anon_sym_PERCENT, 2816), (anon_sym_STAR, 2814), (anon_sym_DOT, 2814),
     (aux_sym_ref_value_token1, 2814), (aux_sym_ref_addr_token1, 2814), (anon_sym_CARET, 2816),
     (anon_sym_DOT_DOT_DOT, 2816), (aux_sym_method_decl_token1, 2814), (anon_sym_SLASH, 2814),
     (anon_sym_STAR_STAR, 2816), (anon_sym_AMP, 2816), (anon_sym_LT_GT, 2816), (anon_sym_LT, 2814),
     (anon_sym_GT, 2814), (anon_sym_LT_EQ, 2816), (anon_sym_GT_EQ, 2816),
     (aux_sym_or_operator_token1, 2814), (aux_sym_xor_operator_token1, 2814),
     (aux_sym_and_operator_token1, 2814), (aux_sym_mult_token1, 2814), (aux_sym_unary_token1, 2814),
     (aux_sym__stmt_token1, 2814), (aux_sym__stmt_token2, 2814), (aux_sym__stmt_token3, 2814),
     (aux_sym_if_stmt_token1, 2814), (aux_sym_if_stmt_token3, 2814),
     (aux_sym_case_stmt_token1, 2814), (aux_sym_case_stmt_token2, 2814),
     (aux_sym_for_stmt_token1, 2814), (aux_sym_while_stmt_token1, 2814),
     (aux_sym_repeat_stmt_token1, 2814), (aux_sym_raise_stmt_token1, 2814),
     (aux_sym_try_stmt_token1, 2814), (aux_sym_try_stmt_token2, 2814),
     (aux_sym_catch_clause_token1, 2814), (aux_sym_finally_clause_token1, 2814),
     (sym_c_style_comment, 3), (sym_pascal_style_comment, 3), (sym_pragma, 3),
     (sym__minus_before_base, 2816), (sym__plus_before_base, 2816)]"

lemma ts_parse_row_1133_scan: "row_scan tokens_2_1 0 ts_parse_row_1133 = Some (Suc (Suc (Suc (Suc (Suc (Suc 0))))))"
  unfolding ts_parse_row_1133_def by simp

text \<open>Lines 180963 to 181057.\<close>

definition ts_parse_row_1134 :: parse_row where
  "ts_parse_row_1134 =
    [(sym_identifier, 2818), (anon_sym_EQ, 2820),
     (aux_sym_ERR_unexpected_this_in_path_token1, 2818),
     (aux_sym_ERR_unexpected_super_in_path_token1, 2818), (sym_line_comment, 3),
     (anon_sym_LBRACE, 2818), (anon_sym_LPAREN, 2820), (aux_sym_test_pragma_token1, 2820),
     (aux_sym_once_pragma_token1, 2820), (aux_sym_must_call_pragma_token1, 2820),
     (aux_sym_export_pragma_token1, 2820), (anon_sym_POUND, 2820), (sym_unsigned_int, 2818),
     (sym__explicit_signed_int, 2818), (sym_binary_int, 2820), (sym_octal_int, 2820),
     (sym_hex_int, 2820), (sym__explicit_signed_real, 2820), (sym_real_value, 2820),
     (aux_sym_bool_literal_with_string_token1, 2820),
     (aux_sym_bool_literal_with_string_token2, 2818),
     (aux_sym_bool_literal_with_string_token3, 2818), (sym_s_byte_char_str, 2820),
     (sym_d_byte_char_str, 2820), (aux_sym_time_token1, 2820), (anon_sym_PLUS, 2818),
     (anon_sym_DASH, 2818), (aux_sym_ltime_token1, 2820), (aux_sym_tod_token1, 2820),
     (aux_sym_ltod_token1, 2820), (aux_sym_short_date_token1, 2820),
     (aux_sym_long_date_token1, 2820), (aux_sym_short_date_and_time_token1, 2820),
     (aux_sym_long_date_and_time_token1, 2820), (aux_sym_sign_int_type_name_token1, 2818),
     (aux_sym_sign_int_type_name_token2, 2818), (aux_sym_sign_int_type_name_token3, 2818),
     (aux_sym_sign_int_type_name_token4, 2818), (aux_sym_unsign_int_type_name_token1, 2818),
     (aux_sym_unsign_int_type_name_token2, 2818), (aux_sym_unsign_int_type_name_token3, 2818),
     (aux_sym_unsign_int_type_name_token4, 2818), (aux_sym_real_type_name_token1, 2818),
     (aux_sym_real_type_name_token2, 2818), (aux_sym_string_name_token1, 2818),
     (anon_sym_LBRACK, 2820), (aux_sym_char_name_token1, 2818),
     (aux_sym_multibits_type_name_token1, 2818), (aux_sym_multibits_type_name_token2, 2818),
     (aux_sym_multibits_type_name_token3, 2818), (aux_sym_multibits_type_name_token4, 2818),
     (anon_sym_SEMI, 2820), (anon_sym_PERCENT, 2820), (anon_sym_STAR, 2818), (anon_sym_DOT, 2818),
     (aux_sym_ref_value_token1, 2818), (aux_sym_ref_addr_token1, 2818), (anon_sym_CARET, 2820),
     (anon_sym_DOT_DOT_DOT, 2820), (aux_sym_method_decl_token1, 2818), (anon_sym_SLASH, 2818),
     (anon_sym_STAR_STAR, 2820), (anon_sym_AMP, 2820), (anon_sym_LT_GT, 2820), (anon_sym_LT, 2818),
     (anon_sym_GT, 2818), (anon_sym_LT_EQ, 2820), (anon_sym_GT_EQ, 2820),
     (aux_sym_or_operator_token1, 2818), (aux_sym_xor_operator_token1, 2818),
     (aux_sym_and_operator_token1, 2818), (aux_sym_mult_token1, 2818), (aux_sym_unary_token1, 2818),
     (aux_sym__stmt_token1, 2818), (aux_sym__stmt_token2, 2818), (aux_sym__stmt_token3, 2818),
     (aux_sym_if_stmt_token1, 2818), (aux_sym_if_stmt_token3, 2818),
     (aux_sym_case_stmt_token1, 2818), (aux_sym_case_stmt_token2, 2818),
     (aux_sym_for_stmt_token1, 2818), (aux_sym_while_stmt_token1, 2818),
     (aux_sym_repeat_stmt_token1, 2818), (aux_sym_raise_stmt_token1, 2818),
     (aux_sym_try_stmt_token1, 2818), (aux_sym_try_stmt_token2, 2818),
     (aux_sym_catch_clause_token1, 2818), (aux_sym_finally_clause_token1, 2818),
     (sym_c_style_comment, 3), (sym_pascal_style_comment, 3), (sym_pragma, 3),
     (sym__minus_before_base, 2820), (sym__plus_before_base, 2820)]"

lemma ts_parse_row_1134_scan: "row_scan tokens_2_1 0 ts_parse_row_1134 = Some (Suc (Suc (Suc (Suc (Suc (Suc 0))))))"
  unfolding ts_parse_row_1134_def by simp

text \<open>Lines 181058 to 181152.\<close>

definition ts_parse_row_1135 :: parse_row where
  "ts_parse_row_1135 =
    [(sym_identifier, 2822), (anon_sym_EQ, 2824),
     (aux_sym_ERR_unexpected_this_in_path_token1, 2822),
     (aux_sym_ERR_unexpected_super_in_path_token1, 2822), (sym_line_comment, 3),
     (anon_sym_LBRACE, 2822), (anon_sym_LPAREN, 2824), (aux_sym_test_pragma_token1, 2824),
     (aux_sym_once_pragma_token1, 2824), (aux_sym_must_call_pragma_token1, 2824),
     (aux_sym_export_pragma_token1, 2824), (anon_sym_POUND, 2824), (sym_unsigned_int, 2822),
     (sym__explicit_signed_int, 2822), (sym_binary_int, 2824), (sym_octal_int, 2824),
     (sym_hex_int, 2824), (sym__explicit_signed_real, 2824), (sym_real_value, 2824),
     (aux_sym_bool_literal_with_string_token1, 2824),
     (aux_sym_bool_literal_with_string_token2, 2822),
     (aux_sym_bool_literal_with_string_token3, 2822), (sym_s_byte_char_str, 2824),
     (sym_d_byte_char_str, 2824), (aux_sym_time_token1, 2824), (anon_sym_PLUS, 2822),
     (anon_sym_DASH, 2822), (aux_sym_ltime_token1, 2824), (aux_sym_tod_token1, 2824),
     (aux_sym_ltod_token1, 2824), (aux_sym_short_date_token1, 2824),
     (aux_sym_long_date_token1, 2824), (aux_sym_short_date_and_time_token1, 2824),
     (aux_sym_long_date_and_time_token1, 2824), (aux_sym_sign_int_type_name_token1, 2822),
     (aux_sym_sign_int_type_name_token2, 2822), (aux_sym_sign_int_type_name_token3, 2822),
     (aux_sym_sign_int_type_name_token4, 2822), (aux_sym_unsign_int_type_name_token1, 2822),
     (aux_sym_unsign_int_type_name_token2, 2822), (aux_sym_unsign_int_type_name_token3, 2822),
     (aux_sym_unsign_int_type_name_token4, 2822), (aux_sym_real_type_name_token1, 2822),
     (aux_sym_real_type_name_token2, 2822), (aux_sym_string_name_token1, 2822),
     (anon_sym_LBRACK, 2824), (aux_sym_char_name_token1, 2822),
     (aux_sym_multibits_type_name_token1, 2822), (aux_sym_multibits_type_name_token2, 2822),
     (aux_sym_multibits_type_name_token3, 2822), (aux_sym_multibits_type_name_token4, 2822),
     (anon_sym_SEMI, 2824), (anon_sym_PERCENT, 2824), (anon_sym_STAR, 2822), (anon_sym_DOT, 2822),
     (aux_sym_ref_value_token1, 2822), (aux_sym_ref_addr_token1, 2822), (anon_sym_CARET, 2824),
     (anon_sym_DOT_DOT_DOT, 2824), (aux_sym_method_decl_token1, 2822), (anon_sym_SLASH, 2822),
     (anon_sym_STAR_STAR, 2824), (anon_sym_AMP, 2824), (anon_sym_LT_GT, 2824), (anon_sym_LT, 2822),
     (anon_sym_GT, 2822), (anon_sym_LT_EQ, 2824), (anon_sym_GT_EQ, 2824),
     (aux_sym_or_operator_token1, 2822), (aux_sym_xor_operator_token1, 2822),
     (aux_sym_and_operator_token1, 2822), (aux_sym_mult_token1, 2822), (aux_sym_unary_token1, 2822),
     (aux_sym__stmt_token1, 2822), (aux_sym__stmt_token2, 2822), (aux_sym__stmt_token3, 2822),
     (aux_sym_if_stmt_token1, 2822), (aux_sym_if_stmt_token3, 2822),
     (aux_sym_case_stmt_token1, 2822), (aux_sym_case_stmt_token2, 2822),
     (aux_sym_for_stmt_token1, 2822), (aux_sym_while_stmt_token1, 2822),
     (aux_sym_repeat_stmt_token1, 2822), (aux_sym_raise_stmt_token1, 2822),
     (aux_sym_try_stmt_token1, 2822), (aux_sym_try_stmt_token2, 2822),
     (aux_sym_catch_clause_token1, 2822), (aux_sym_finally_clause_token1, 2822),
     (sym_c_style_comment, 3), (sym_pascal_style_comment, 3), (sym_pragma, 3),
     (sym__minus_before_base, 2824), (sym__plus_before_base, 2824)]"

lemma ts_parse_row_1135_scan: "row_scan tokens_2_1 0 ts_parse_row_1135 = Some (Suc (Suc (Suc (Suc (Suc (Suc 0))))))"
  unfolding ts_parse_row_1135_def by simp

text \<open>Lines 181153 to 181247.\<close>

definition ts_parse_row_1136 :: parse_row where
  "ts_parse_row_1136 =
    [(sym_any_invocation_kind, 1141), (sym_identifier, 2826), (anon_sym_EQ, 2828),
     (aux_sym_ERR_unexpected_this_in_path_token1, 2826),
     (aux_sym_ERR_unexpected_super_in_path_token1, 2826), (sym_line_comment, 3),
     (anon_sym_LBRACE, 2826), (anon_sym_LPAREN, 2828), (aux_sym_test_pragma_token1, 2828),
     (aux_sym_once_pragma_token1, 2828), (aux_sym_must_call_pragma_token1, 2828),
     (aux_sym_export_pragma_token1, 2828), (anon_sym_POUND, 2828), (sym_unsigned_int, 2826),
     (sym__explicit_signed_int, 2826), (sym_binary_int, 2828), (sym_octal_int, 2828),
     (sym_hex_int, 2828), (sym__explicit_signed_real, 2828), (sym_real_value, 2828),
     (aux_sym_bool_literal_with_string_token1, 2828),
     (aux_sym_bool_literal_with_string_token2, 2826),
     (aux_sym_bool_literal_with_string_token3, 2826), (sym_s_byte_char_str, 2828),
     (sym_d_byte_char_str, 2828), (aux_sym_time_token1, 2828), (anon_sym_PLUS, 2826),
     (anon_sym_DASH, 2826), (aux_sym_ltime_token1, 2828), (aux_sym_tod_token1, 2828),
     (aux_sym_ltod_token1, 2828), (aux_sym_short_date_token1, 2828),
     (aux_sym_long_date_token1, 2828), (aux_sym_short_date_and_time_token1, 2828),
     (aux_sym_long_date_and_time_token1, 2828), (aux_sym_sign_int_type_name_token1, 2826),
     (aux_sym_sign_int_type_name_token2, 2826), (aux_sym_sign_int_type_name_token3, 2826),
     (aux_sym_sign_int_type_name_token4, 2826), (aux_sym_unsign_int_type_name_token1, 2826),
     (aux_sym_unsign_int_type_name_token2, 2826), (aux_sym_unsign_int_type_name_token3, 2826),
     (aux_sym_unsign_int_type_name_token4, 2826), (aux_sym_real_type_name_token1, 2826),
     (aux_sym_real_type_name_token2, 2826), (aux_sym_string_name_token1, 2826),
     (aux_sym_char_name_token1, 2826), (aux_sym_multibits_type_name_token1, 2826),
     (aux_sym_multibits_type_name_token2, 2826), (aux_sym_multibits_type_name_token3, 2826),
     (aux_sym_multibits_type_name_token4, 2826), (anon_sym_SEMI, 2828), (anon_sym_PERCENT, 2828),
     (anon_sym_STAR, 2826), (anon_sym_DOT, 2830), (aux_sym_ref_value_token1, 2826),
     (aux_sym_ref_addr_token1, 2826), (anon_sym_CARET, 2833), (anon_sym_DOT_DOT_DOT, 2828),
     (aux_sym_method_decl_token1, 2826), (anon_sym_SLASH, 2826), (anon_sym_STAR_STAR, 2828),
     (anon_sym_AMP, 2828), (anon_sym_LT_GT, 2828), (anon_sym_LT, 2826), (anon_sym_GT, 2826),
     (anon_sym_LT_EQ, 2828), (anon_sym_GT_EQ, 2828), (aux_sym_or_operator_token1, 2826),
     (aux_sym_xor_operator_token1, 2826), (aux_sym_and_operator_token1, 2826),
     (aux_sym_mult_token1, 2826), (aux_sym_unary_token1, 2826), (aux_sym__stmt_token1, 2826),
     (aux_sym__stmt_token2, 2826), (aux_sym__stmt_token3, 2826), (aux_sym_if_stmt_token1, 2826),
     (aux_sym_if_stmt_token3, 2826), (aux_sym_case_stmt_token1, 2826),
     (aux_sym_case_stmt_token2, 2826), (aux_sym_for_stmt_token1, 2826),
     (aux_sym_while_stmt_token1, 2826), (aux_sym_repeat_stmt_token1, 2826),
     (aux_sym_raise_stmt_token1, 2826), (aux_sym_try_stmt_token1, 2826),
     (aux_sym_try_stmt_token2, 2826), (aux_sym_catch_clause_token1, 2826),
     (aux_sym_finally_clause_token1, 2826), (sym_c_style_comment, 3), (sym_pascal_style_comment, 3),
     (sym_pragma, 3), (sym__minus_before_base, 2828), (sym__plus_before_base, 2828)]"

lemma ts_parse_row_1136_scan: "row_scan tokens_2_1 0 ts_parse_row_1136 = Some (Suc (Suc (Suc (Suc (Suc (Suc 0))))))"
  unfolding ts_parse_row_1136_def by simp

text \<open>Lines 181248 to 181342.\<close>

definition ts_parse_row_1137 :: parse_row where
  "ts_parse_row_1137 =
    [(sym_identifier, 2835), (anon_sym_EQ, 2693),
     (aux_sym_ERR_unexpected_this_in_path_token1, 2835),
     (aux_sym_ERR_unexpected_super_in_path_token1, 2835), (sym_line_comment, 3),
     (anon_sym_LBRACE, 2835), (anon_sym_LPAREN, 2693), (aux_sym_test_pragma_token1, 2693),
     (aux_sym_once_pragma_token1, 2693), (aux_sym_must_call_pragma_token1, 2693),
     (aux_sym_export_pragma_token1, 2693), (anon_sym_POUND, 2693), (sym_unsigned_int, 2835),
     (sym__explicit_signed_int, 2835), (sym_binary_int, 2693), (sym_octal_int, 2693),
     (sym_hex_int, 2693), (sym__explicit_signed_real, 2693), (sym_real_value, 2693),
     (aux_sym_bool_literal_with_string_token1, 2693),
     (aux_sym_bool_literal_with_string_token2, 2835),
     (aux_sym_bool_literal_with_string_token3, 2835), (sym_s_byte_char_str, 2693),
     (sym_d_byte_char_str, 2693), (aux_sym_time_token1, 2693), (anon_sym_PLUS, 2835),
     (anon_sym_DASH, 2835), (aux_sym_ltime_token1, 2693), (aux_sym_tod_token1, 2693),
     (aux_sym_ltod_token1, 2693), (aux_sym_short_date_token1, 2693),
     (aux_sym_long_date_token1, 2693), (aux_sym_short_date_and_time_token1, 2693),
     (aux_sym_long_date_and_time_token1, 2693), (aux_sym_sign_int_type_name_token1, 2835),
     (aux_sym_sign_int_type_name_token2, 2835), (aux_sym_sign_int_type_name_token3, 2835),
     (aux_sym_sign_int_type_name_token4, 2835), (aux_sym_unsign_int_type_name_token1, 2835),
     (aux_sym_unsign_int_type_name_token2, 2835), (aux_sym_unsign_int_type_name_token3, 2835),
     (aux_sym_unsign_int_type_name_token4, 2835), (aux_sym_real_type_name_token1, 2835),
     (aux_sym_real_type_name_token2, 2835), (aux_sym_string_name_token1, 2835),
     (anon_sym_LBRACK, 2693), (aux_sym_char_name_token1, 2835),
     (aux_sym_multibits_type_name_token1, 2835), (aux_sym_multibits_type_name_token2, 2835),
     (aux_sym_multibits_type_name_token3, 2835), (aux_sym_multibits_type_name_token4, 2835),
     (anon_sym_SEMI, 2693), (anon_sym_PERCENT, 2693), (anon_sym_STAR, 2835), (anon_sym_DOT, 2835),
     (aux_sym_ref_value_token1, 2835), (aux_sym_ref_addr_token1, 2835), (anon_sym_CARET, 2693),
     (anon_sym_DOT_DOT_DOT, 2693), (aux_sym_method_decl_token1, 2835), (anon_sym_SLASH, 2835),
     (anon_sym_STAR_STAR, 2693), (anon_sym_AMP, 2693), (anon_sym_LT_GT, 2693), (anon_sym_LT, 2835),
     (anon_sym_GT, 2835), (anon_sym_LT_EQ, 2693), (anon_sym_GT_EQ, 2693),
     (aux_sym_or_operator_token1, 2835), (aux_sym_xor_operator_token1, 2835),
     (aux_sym_and_operator_token1, 2835), (aux_sym_mult_token1, 2835), (aux_sym_unary_token1, 2835),
     (aux_sym__stmt_token1, 2835), (aux_sym__stmt_token2, 2835), (aux_sym__stmt_token3, 2835),
     (aux_sym_if_stmt_token1, 2835), (aux_sym_if_stmt_token3, 2835),
     (aux_sym_case_stmt_token1, 2835), (aux_sym_case_stmt_token2, 2835),
     (aux_sym_for_stmt_token1, 2835), (aux_sym_while_stmt_token1, 2835),
     (aux_sym_repeat_stmt_token1, 2835), (aux_sym_raise_stmt_token1, 2835),
     (aux_sym_try_stmt_token1, 2835), (aux_sym_try_stmt_token2, 2835),
     (aux_sym_catch_clause_token1, 2835), (aux_sym_finally_clause_token1, 2835),
     (sym_c_style_comment, 3), (sym_pascal_style_comment, 3), (sym_pragma, 3),
     (sym__minus_before_base, 2693), (sym__plus_before_base, 2693)]"

lemma ts_parse_row_1137_scan: "row_scan tokens_2_1 0 ts_parse_row_1137 = Some (Suc (Suc (Suc (Suc (Suc (Suc 0))))))"
  unfolding ts_parse_row_1137_def by simp

text \<open>Lines 181343 to 181435.\<close>

definition ts_parse_row_1138 :: parse_row where
  "ts_parse_row_1138 =
    [(sym_identifier, 2837), (anon_sym_EQ, 2839),
     (aux_sym_ERR_unexpected_this_in_path_token1, 2837),
     (aux_sym_ERR_unexpected_super_in_path_token1, 2837), (sym_line_comment, 3),
     (anon_sym_LBRACE, 2837), (anon_sym_LPAREN, 2841), (aux_sym_test_pragma_token1, 2839),
     (aux_sym_once_pragma_token1, 2839), (aux_sym_must_call_pragma_token1, 2839),
     (aux_sym_export_pragma_token1, 2839), (anon_sym_POUND, 2844), (sym_unsigned_int, 2837),
     (sym__explicit_signed_int, 2837), (sym_binary_int, 2839), (sym_octal_int, 2839),
     (sym_hex_int, 2839), (sym__explicit_signed_real, 2839), (sym_real_value, 2839),
     (aux_sym_bool_literal_with_string_token1, 2839),
     (aux_sym_bool_literal_with_string_token2, 2837),
     (aux_sym_bool_literal_with_string_token3, 2837), (sym_s_byte_char_str, 2839),
     (sym_d_byte_char_str, 2839), (aux_sym_time_token1, 2839), (anon_sym_PLUS, 2837),
     (anon_sym_DASH, 2837), (aux_sym_ltime_token1, 2839), (aux_sym_tod_token1, 2839),
     (aux_sym_ltod_token1, 2839), (aux_sym_short_date_token1, 2839),
     (aux_sym_long_date_token1, 2839), (aux_sym_short_date_and_time_token1, 2839),
     (aux_sym_long_date_and_time_token1, 2839), (aux_sym_sign_int_type_name_token1, 2837),
     (aux_sym_sign_int_type_name_token2, 2837), (aux_sym_sign_int_type_name_token3, 2837),
     (aux_sym_sign_int_type_name_token4, 2837), (aux_sym_unsign_int_type_name_token1, 2837),
     (aux_sym_unsign_int_type_name_token2, 2837), (aux_sym_unsign_int_type_name_token3, 2837),
     (aux_sym_unsign_int_type_name_token4, 2837), (aux_sym_real_type_name_token1, 2837),
     (aux_sym_real_type_name_token2, 2837), (aux_sym_string_name_token1, 2837),
     (aux_sym_char_name_token1, 2837), (aux_sym_multibits_type_name_token1, 2837),
     (aux_sym_multibits_type_name_token2, 2837), (aux_sym_multibits_type_name_token3, 2837),
     (aux_sym_multibits_type_name_token4, 2837), (anon_sym_SEMI, 2839), (anon_sym_PERCENT, 2839),
     (anon_sym_STAR, 2837), (anon_sym_DOT, 2837), (aux_sym_ref_value_token1, 2837),
     (aux_sym_ref_addr_token1, 2837), (anon_sym_DOT_DOT_DOT, 2839),
     (aux_sym_method_decl_token1, 2837), (anon_sym_SLASH, 2837), (anon_sym_STAR_STAR, 2839),
     (anon_sym_AMP, 2839), (anon_sym_LT_GT, 2839), (anon_sym_LT, 2837), (anon_sym_GT, 2837),
     (anon_sym_LT_EQ, 2839), (anon_sym_GT_EQ, 2839), (aux_sym_or_operator_token1, 2837),
     (aux_sym_xor_operator_token1, 2837), (aux_sym_and_operator_token1, 2837),
     (aux_sym_mult_token1, 2837), (aux_sym_unary_token1, 2837), (aux_sym__stmt_token1, 2837),
     (aux_sym__stmt_token2, 2837), (aux_sym__stmt_token3, 2837), (aux_sym_if_stmt_token1, 2837),
     (aux_sym_if_stmt_token3, 2837), (aux_sym_case_stmt_token1, 2837),
     (aux_sym_case_stmt_token2, 2837), (aux_sym_for_stmt_token1, 2837),
     (aux_sym_while_stmt_token1, 2837), (aux_sym_repeat_stmt_token1, 2837),
     (aux_sym_raise_stmt_token1, 2837), (aux_sym_try_stmt_token1, 2837),
     (aux_sym_try_stmt_token2, 2837), (aux_sym_catch_clause_token1, 2837),
     (aux_sym_finally_clause_token1, 2837), (sym_c_style_comment, 3), (sym_pascal_style_comment, 3),
     (sym_pragma, 3), (sym__minus_before_base, 2839), (sym__plus_before_base, 2839)]"

lemma ts_parse_row_1138_scan: "row_scan tokens_2_1 0 ts_parse_row_1138 = Some (Suc (Suc (Suc (Suc (Suc (Suc 0))))))"
  unfolding ts_parse_row_1138_def by simp

text \<open>Lines 181436 to 181528.\<close>

definition ts_parse_row_1139 :: parse_row where
  "ts_parse_row_1139 =
    [(sym_identifier, 2846), (anon_sym_EQ, 2848),
     (aux_sym_ERR_unexpected_this_in_path_token1, 2846),
     (aux_sym_ERR_unexpected_super_in_path_token1, 2846), (sym_line_comment, 3),
     (anon_sym_LBRACE, 2846), (anon_sym_LPAREN, 2848), (aux_sym_test_pragma_token1, 2848),
     (aux_sym_once_pragma_token1, 2848), (aux_sym_must_call_pragma_token1, 2848),
     (aux_sym_export_pragma_token1, 2848), (anon_sym_POUND, 2848), (sym_unsigned_int, 2846),
     (sym__explicit_signed_int, 2846), (sym_binary_int, 2848), (sym_octal_int, 2848),
     (sym_hex_int, 2848), (sym__explicit_signed_real, 2848), (sym_real_value, 2848),
     (aux_sym_bool_literal_with_string_token1, 2848),
     (aux_sym_bool_literal_with_string_token2, 2846),
     (aux_sym_bool_literal_with_string_token3, 2846), (sym_s_byte_char_str, 2848),
     (sym_d_byte_char_str, 2848), (aux_sym_time_token1, 2848), (anon_sym_PLUS, 2846),
     (anon_sym_DASH, 2846), (aux_sym_ltime_token1, 2848), (aux_sym_tod_token1, 2848),
     (aux_sym_ltod_token1, 2848), (aux_sym_short_date_token1, 2848),
     (aux_sym_long_date_token1, 2848), (aux_sym_short_date_and_time_token1, 2848),
     (aux_sym_long_date_and_time_token1, 2848), (aux_sym_sign_int_type_name_token1, 2846),
     (aux_sym_sign_int_type_name_token2, 2846), (aux_sym_sign_int_type_name_token3, 2846),
     (aux_sym_sign_int_type_name_token4, 2846), (aux_sym_unsign_int_type_name_token1, 2846),
     (aux_sym_unsign_int_type_name_token2, 2846), (aux_sym_unsign_int_type_name_token3, 2846),
     (aux_sym_unsign_int_type_name_token4, 2846), (aux_sym_real_type_name_token1, 2846),
     (aux_sym_real_type_name_token2, 2846), (aux_sym_string_name_token1, 2846),
     (aux_sym_char_name_token1, 2846), (aux_sym_multibits_type_name_token1, 2846),
     (aux_sym_multibits_type_name_token2, 2846), (aux_sym_multibits_type_name_token3, 2846),
     (aux_sym_multibits_type_name_token4, 2846), (anon_sym_SEMI, 2848), (anon_sym_PERCENT, 2848),
     (anon_sym_STAR, 2846), (anon_sym_DOT, 2846), (aux_sym_ref_value_token1, 2846),
     (aux_sym_ref_addr_token1, 2846), (anon_sym_DOT_DOT_DOT, 2848),
     (aux_sym_method_decl_token1, 2846), (anon_sym_SLASH, 2846), (anon_sym_STAR_STAR, 2848),
     (anon_sym_AMP, 2848), (anon_sym_LT_GT, 2848), (anon_sym_LT, 2846), (anon_sym_GT, 2846),
     (anon_sym_LT_EQ, 2848), (anon_sym_GT_EQ, 2848), (aux_sym_or_operator_token1, 2846),
     (aux_sym_xor_operator_token1, 2846), (aux_sym_and_operator_token1, 2846),
     (aux_sym_mult_token1, 2846), (aux_sym_unary_token1, 2846), (aux_sym__stmt_token1, 2846),
     (aux_sym__stmt_token2, 2846), (aux_sym__stmt_token3, 2846), (aux_sym_if_stmt_token1, 2846),
     (aux_sym_if_stmt_token3, 2846), (aux_sym_case_stmt_token1, 2846),
     (aux_sym_case_stmt_token2, 2846), (aux_sym_for_stmt_token1, 2846),
     (aux_sym_while_stmt_token1, 2846), (aux_sym_repeat_stmt_token1, 2846),
     (aux_sym_raise_stmt_token1, 2846), (aux_sym_try_stmt_token1, 2846),
     (aux_sym_try_stmt_token2, 2846), (aux_sym_catch_clause_token1, 2846),
     (aux_sym_finally_clause_token1, 2846), (sym_c_style_comment, 3), (sym_pascal_style_comment, 3),
     (sym_pragma, 3), (sym__minus_before_base, 2848), (sym__plus_before_base, 2848)]"

lemma ts_parse_row_1139_scan: "row_scan tokens_2_1 0 ts_parse_row_1139 = Some (Suc (Suc (Suc (Suc (Suc (Suc 0))))))"
  unfolding ts_parse_row_1139_def by simp

text \<open>Lines 181529 to 181621.\<close>

definition ts_parse_row_1140 :: parse_row where
  "ts_parse_row_1140 =
    [(sym_identifier, 2850), (anon_sym_EQ, 2852),
     (aux_sym_ERR_unexpected_this_in_path_token1, 2850),
     (aux_sym_ERR_unexpected_super_in_path_token1, 2850), (sym_line_comment, 3),
     (anon_sym_LBRACE, 2850), (anon_sym_LPAREN, 2852), (aux_sym_test_pragma_token1, 2852),
     (aux_sym_once_pragma_token1, 2852), (aux_sym_must_call_pragma_token1, 2852),
     (aux_sym_export_pragma_token1, 2852), (anon_sym_POUND, 2852), (sym_unsigned_int, 2850),
     (sym__explicit_signed_int, 2850), (sym_binary_int, 2852), (sym_octal_int, 2852),
     (sym_hex_int, 2852), (sym__explicit_signed_real, 2852), (sym_real_value, 2852),
     (aux_sym_bool_literal_with_string_token1, 2852),
     (aux_sym_bool_literal_with_string_token2, 2850),
     (aux_sym_bool_literal_with_string_token3, 2850), (sym_s_byte_char_str, 2852),
     (sym_d_byte_char_str, 2852), (aux_sym_time_token1, 2852), (anon_sym_PLUS, 2850),
     (anon_sym_DASH, 2850), (aux_sym_ltime_token1, 2852), (aux_sym_tod_token1, 2852),
     (aux_sym_ltod_token1, 2852), (aux_sym_short_date_token1, 2852),
     (aux_sym_long_date_token1, 2852), (aux_sym_short_date_and_time_token1, 2852),
     (aux_sym_long_date_and_time_token1, 2852), (aux_sym_sign_int_type_name_token1, 2850),
     (aux_sym_sign_int_type_name_token2, 2850), (aux_sym_sign_int_type_name_token3, 2850),
     (aux_sym_sign_int_type_name_token4, 2850), (aux_sym_unsign_int_type_name_token1, 2850),
     (aux_sym_unsign_int_type_name_token2, 2850), (aux_sym_unsign_int_type_name_token3, 2850),
     (aux_sym_unsign_int_type_name_token4, 2850), (aux_sym_real_type_name_token1, 2850),
     (aux_sym_real_type_name_token2, 2850), (aux_sym_string_name_token1, 2850),
     (aux_sym_char_name_token1, 2850), (aux_sym_multibits_type_name_token1, 2850),
     (aux_sym_multibits_type_name_token2, 2850), (aux_sym_multibits_type_name_token3, 2850),
     (aux_sym_multibits_type_name_token4, 2850), (anon_sym_SEMI, 2852), (anon_sym_PERCENT, 2852),
     (anon_sym_STAR, 2850), (anon_sym_DOT, 2850), (aux_sym_ref_value_token1, 2850),
     (aux_sym_ref_addr_token1, 2850), (anon_sym_DOT_DOT_DOT, 2852),
     (aux_sym_method_decl_token1, 2850), (anon_sym_SLASH, 2850), (anon_sym_STAR_STAR, 2852),
     (anon_sym_AMP, 2852), (anon_sym_LT_GT, 2852), (anon_sym_LT, 2850), (anon_sym_GT, 2850),
     (anon_sym_LT_EQ, 2852), (anon_sym_GT_EQ, 2852), (aux_sym_or_operator_token1, 2850),
     (aux_sym_xor_operator_token1, 2850), (aux_sym_and_operator_token1, 2850),
     (aux_sym_mult_token1, 2850), (aux_sym_unary_token1, 2850), (aux_sym__stmt_token1, 2850),
     (aux_sym__stmt_token2, 2850), (aux_sym__stmt_token3, 2850), (aux_sym_if_stmt_token1, 2850),
     (aux_sym_if_stmt_token3, 2850), (aux_sym_case_stmt_token1, 2850),
     (aux_sym_case_stmt_token2, 2850), (aux_sym_for_stmt_token1, 2850),
     (aux_sym_while_stmt_token1, 2850), (aux_sym_repeat_stmt_token1, 2850),
     (aux_sym_raise_stmt_token1, 2850), (aux_sym_try_stmt_token1, 2850),
     (aux_sym_try_stmt_token2, 2850), (aux_sym_catch_clause_token1, 2850),
     (aux_sym_finally_clause_token1, 2850), (sym_c_style_comment, 3), (sym_pascal_style_comment, 3),
     (sym_pragma, 3), (sym__minus_before_base, 2852), (sym__plus_before_base, 2852)]"

lemma ts_parse_row_1140_scan: "row_scan tokens_2_1 0 ts_parse_row_1140 = Some (Suc (Suc (Suc (Suc (Suc (Suc 0))))))"
  unfolding ts_parse_row_1140_def by simp

text \<open>Lines 181622 to 181714.\<close>

definition ts_parse_row_1141 :: parse_row where
  "ts_parse_row_1141 =
    [(sym_identifier, 2854), (anon_sym_EQ, 2856),
     (aux_sym_ERR_unexpected_this_in_path_token1, 2854),
     (aux_sym_ERR_unexpected_super_in_path_token1, 2854), (sym_line_comment, 3),
     (anon_sym_LBRACE, 2854), (anon_sym_LPAREN, 2856), (aux_sym_test_pragma_token1, 2856),
     (aux_sym_once_pragma_token1, 2856), (aux_sym_must_call_pragma_token1, 2856),
     (aux_sym_export_pragma_token1, 2856), (anon_sym_POUND, 2856), (sym_unsigned_int, 2854),
     (sym__explicit_signed_int, 2854), (sym_binary_int, 2856), (sym_octal_int, 2856),
     (sym_hex_int, 2856), (sym__explicit_signed_real, 2856), (sym_real_value, 2856),
     (aux_sym_bool_literal_with_string_token1, 2856),
     (aux_sym_bool_literal_with_string_token2, 2854),
     (aux_sym_bool_literal_with_string_token3, 2854), (sym_s_byte_char_str, 2856),
     (sym_d_byte_char_str, 2856), (aux_sym_time_token1, 2856), (anon_sym_PLUS, 2854),
     (anon_sym_DASH, 2854), (aux_sym_ltime_token1, 2856), (aux_sym_tod_token1, 2856),
     (aux_sym_ltod_token1, 2856), (aux_sym_short_date_token1, 2856),
     (aux_sym_long_date_token1, 2856), (aux_sym_short_date_and_time_token1, 2856),
     (aux_sym_long_date_and_time_token1, 2856), (aux_sym_sign_int_type_name_token1, 2854),
     (aux_sym_sign_int_type_name_token2, 2854), (aux_sym_sign_int_type_name_token3, 2854),
     (aux_sym_sign_int_type_name_token4, 2854), (aux_sym_unsign_int_type_name_token1, 2854),
     (aux_sym_unsign_int_type_name_token2, 2854), (aux_sym_unsign_int_type_name_token3, 2854),
     (aux_sym_unsign_int_type_name_token4, 2854), (aux_sym_real_type_name_token1, 2854),
     (aux_sym_real_type_name_token2, 2854), (aux_sym_string_name_token1, 2854),
     (aux_sym_char_name_token1, 2854), (aux_sym_multibits_type_name_token1, 2854),
     (aux_sym_multibits_type_name_token2, 2854), (aux_sym_multibits_type_name_token3, 2854),
     (aux_sym_multibits_type_name_token4, 2854), (anon_sym_SEMI, 2856), (anon_sym_PERCENT, 2856),
     (anon_sym_STAR, 2854), (anon_sym_DOT, 2854), (aux_sym_ref_value_token1, 2854),
     (aux_sym_ref_addr_token1, 2854), (anon_sym_DOT_DOT_DOT, 2856),
     (aux_sym_method_decl_token1, 2854), (anon_sym_SLASH, 2854), (anon_sym_STAR_STAR, 2856),
     (anon_sym_AMP, 2856), (anon_sym_LT_GT, 2856), (anon_sym_LT, 2854), (anon_sym_GT, 2854),
     (anon_sym_LT_EQ, 2856), (anon_sym_GT_EQ, 2856), (aux_sym_or_operator_token1, 2854),
     (aux_sym_xor_operator_token1, 2854), (aux_sym_and_operator_token1, 2854),
     (aux_sym_mult_token1, 2854), (aux_sym_unary_token1, 2854), (aux_sym__stmt_token1, 2854),
     (aux_sym__stmt_token2, 2854), (aux_sym__stmt_token3, 2854), (aux_sym_if_stmt_token1, 2854),
     (aux_sym_if_stmt_token3, 2854), (aux_sym_case_stmt_token1, 2854),
     (aux_sym_case_stmt_token2, 2854), (aux_sym_for_stmt_token1, 2854),
     (aux_sym_while_stmt_token1, 2854), (aux_sym_repeat_stmt_token1, 2854),
     (aux_sym_raise_stmt_token1, 2854), (aux_sym_try_stmt_token1, 2854),
     (aux_sym_try_stmt_token2, 2854), (aux_sym_catch_clause_token1, 2854),
     (aux_sym_finally_clause_token1, 2854), (sym_c_style_comment, 3), (sym_pascal_style_comment, 3),
     (sym_pragma, 3), (sym__minus_before_base, 2856), (sym__plus_before_base, 2856)]"

lemma ts_parse_row_1141_scan: "row_scan tokens_2_1 0 ts_parse_row_1141 = Some (Suc (Suc (Suc (Suc (Suc (Suc 0))))))"
  unfolding ts_parse_row_1141_def by simp

text \<open>Lines 181715 to 181807.\<close>

definition ts_parse_row_1142 :: parse_row where
  "ts_parse_row_1142 =
    [(aux_sym_relative_offset_repeat1, 1144), (sym_identifier, 2858), (anon_sym_EQ, 2860),
     (aux_sym_ERR_unexpected_this_in_path_token1, 2858),
     (aux_sym_ERR_unexpected_super_in_path_token1, 2858), (sym_line_comment, 3),
     (anon_sym_LBRACE, 2858), (anon_sym_LPAREN, 2860), (aux_sym_test_pragma_token1, 2860),
     (aux_sym_once_pragma_token1, 2860), (aux_sym_must_call_pragma_token1, 2860),
     (aux_sym_export_pragma_token1, 2860), (sym_unsigned_int, 2858),
     (sym__explicit_signed_int, 2858), (sym_binary_int, 2860), (sym_octal_int, 2860),
     (sym_hex_int, 2860), (sym__explicit_signed_real, 2860), (sym_real_value, 2860),
     (aux_sym_bool_literal_with_string_token1, 2860),
     (aux_sym_bool_literal_with_string_token2, 2858),
     (aux_sym_bool_literal_with_string_token3, 2858), (sym_s_byte_char_str, 2860),
     (sym_d_byte_char_str, 2860), (aux_sym_time_token1, 2860), (anon_sym_PLUS, 2858),
     (anon_sym_DASH, 2858), (aux_sym_ltime_token1, 2860), (aux_sym_tod_token1, 2860),
     (aux_sym_ltod_token1, 2860), (aux_sym_short_date_token1, 2860),
     (aux_sym_long_date_token1, 2860), (aux_sym_short_date_and_time_token1, 2860),
     (aux_sym_long_date_and_time_token1, 2860), (aux_sym_sign_int_type_name_token1, 2858),
     (aux_sym_sign_int_type_name_token2, 2858), (aux_sym_sign_int_type_name_token3, 2858),
     (aux_sym_sign_int_type_name_token4, 2858), (aux_sym_unsign_int_type_name_token1, 2858),
     (aux_sym_unsign_int_type_name_token2, 2858), (aux_sym_unsign_int_type_name_token3, 2858),
     (aux_sym_unsign_int_type_name_token4, 2858), (aux_sym_real_type_name_token1, 2858),
     (aux_sym_real_type_name_token2, 2858), (aux_sym_string_name_token1, 2858),
     (aux_sym_char_name_token1, 2858), (aux_sym_multibits_type_name_token1, 2858),
     (aux_sym_multibits_type_name_token2, 2858), (aux_sym_multibits_type_name_token3, 2858),
     (aux_sym_multibits_type_name_token4, 2858), (anon_sym_SEMI, 2860), (anon_sym_PERCENT, 2860),
     (anon_sym_STAR, 2858), (anon_sym_DOT, 2862), (aux_sym_ref_value_token1, 2858),
     (aux_sym_ref_addr_token1, 2858), (anon_sym_DOT_DOT_DOT, 2860),
     (aux_sym_method_decl_token1, 2858), (anon_sym_SLASH, 2858), (anon_sym_STAR_STAR, 2860),
     (anon_sym_AMP, 2860), (anon_sym_LT_GT, 2860), (anon_sym_LT, 2858), (anon_sym_GT, 2858),
     (anon_sym_LT_EQ, 2860), (anon_sym_GT_EQ, 2860), (aux_sym_or_operator_token1, 2858),
     (aux_sym_xor_operator_token1, 2858), (aux_sym_and_operator_token1, 2858),
     (aux_sym_mult_token1, 2858), (aux_sym_unary_token1, 2858), (aux_sym__stmt_token1, 2858),
     (aux_sym__stmt_token2, 2858), (aux_sym__stmt_token3, 2858), (aux_sym_if_stmt_token1, 2858),
     (aux_sym_if_stmt_token3, 2858), (aux_sym_case_stmt_token1, 2858),
     (aux_sym_case_stmt_token2, 2858), (aux_sym_for_stmt_token1, 2858),
     (aux_sym_while_stmt_token1, 2858), (aux_sym_repeat_stmt_token1, 2858),
     (aux_sym_raise_stmt_token1, 2858), (aux_sym_try_stmt_token1, 2858),
     (aux_sym_try_stmt_token2, 2858), (aux_sym_catch_clause_token1, 2858),
     (aux_sym_finally_clause_token1, 2858), (sym_c_style_comment, 3), (sym_pascal_style_comment, 3),
     (sym_pragma, 3), (sym__minus_before_base, 2860), (sym__plus_before_base, 2860)]"

lemma ts_parse_row_1142_scan: "row_scan tokens_2_1 0 ts_parse_row_1142 = Some (Suc (Suc (Suc (Suc (Suc (Suc 0))))))"
  unfolding ts_parse_row_1142_def by simp

text \<open>Lines 181808 to 181900.\<close>

definition ts_parse_row_1143 :: parse_row where
  "ts_parse_row_1143 =
    [(aux_sym_relative_offset_repeat1, 1142), (sym_identifier, 2864), (anon_sym_EQ, 2866),
     (aux_sym_ERR_unexpected_this_in_path_token1, 2864),
     (aux_sym_ERR_unexpected_super_in_path_token1, 2864), (sym_line_comment, 3),
     (anon_sym_LBRACE, 2864), (anon_sym_LPAREN, 2866), (aux_sym_test_pragma_token1, 2866),
     (aux_sym_once_pragma_token1, 2866), (aux_sym_must_call_pragma_token1, 2866),
     (aux_sym_export_pragma_token1, 2866), (sym_unsigned_int, 2864),
     (sym__explicit_signed_int, 2864), (sym_binary_int, 2866), (sym_octal_int, 2866),
     (sym_hex_int, 2866), (sym__explicit_signed_real, 2866), (sym_real_value, 2866),
     (aux_sym_bool_literal_with_string_token1, 2866),
     (aux_sym_bool_literal_with_string_token2, 2864),
     (aux_sym_bool_literal_with_string_token3, 2864), (sym_s_byte_char_str, 2866),
     (sym_d_byte_char_str, 2866), (aux_sym_time_token1, 2866), (anon_sym_PLUS, 2864),
     (anon_sym_DASH, 2864), (aux_sym_ltime_token1, 2866), (aux_sym_tod_token1, 2866),
     (aux_sym_ltod_token1, 2866), (aux_sym_short_date_token1, 2866),
     (aux_sym_long_date_token1, 2866), (aux_sym_short_date_and_time_token1, 2866),
     (aux_sym_long_date_and_time_token1, 2866), (aux_sym_sign_int_type_name_token1, 2864),
     (aux_sym_sign_int_type_name_token2, 2864), (aux_sym_sign_int_type_name_token3, 2864),
     (aux_sym_sign_int_type_name_token4, 2864), (aux_sym_unsign_int_type_name_token1, 2864),
     (aux_sym_unsign_int_type_name_token2, 2864), (aux_sym_unsign_int_type_name_token3, 2864),
     (aux_sym_unsign_int_type_name_token4, 2864), (aux_sym_real_type_name_token1, 2864),
     (aux_sym_real_type_name_token2, 2864), (aux_sym_string_name_token1, 2864),
     (aux_sym_char_name_token1, 2864), (aux_sym_multibits_type_name_token1, 2864),
     (aux_sym_multibits_type_name_token2, 2864), (aux_sym_multibits_type_name_token3, 2864),
     (aux_sym_multibits_type_name_token4, 2864), (anon_sym_SEMI, 2866), (anon_sym_PERCENT, 2866),
     (anon_sym_STAR, 2864), (anon_sym_DOT, 2862), (aux_sym_ref_value_token1, 2864),
     (aux_sym_ref_addr_token1, 2864), (anon_sym_DOT_DOT_DOT, 2866),
     (aux_sym_method_decl_token1, 2864), (anon_sym_SLASH, 2864), (anon_sym_STAR_STAR, 2866),
     (anon_sym_AMP, 2866), (anon_sym_LT_GT, 2866), (anon_sym_LT, 2864), (anon_sym_GT, 2864),
     (anon_sym_LT_EQ, 2866), (anon_sym_GT_EQ, 2866), (aux_sym_or_operator_token1, 2864),
     (aux_sym_xor_operator_token1, 2864), (aux_sym_and_operator_token1, 2864),
     (aux_sym_mult_token1, 2864), (aux_sym_unary_token1, 2864), (aux_sym__stmt_token1, 2864),
     (aux_sym__stmt_token2, 2864), (aux_sym__stmt_token3, 2864), (aux_sym_if_stmt_token1, 2864),
     (aux_sym_if_stmt_token3, 2864), (aux_sym_case_stmt_token1, 2864),
     (aux_sym_case_stmt_token2, 2864), (aux_sym_for_stmt_token1, 2864),
     (aux_sym_while_stmt_token1, 2864), (aux_sym_repeat_stmt_token1, 2864),
     (aux_sym_raise_stmt_token1, 2864), (aux_sym_try_stmt_token1, 2864),
     (aux_sym_try_stmt_token2, 2864), (aux_sym_catch_clause_token1, 2864),
     (aux_sym_finally_clause_token1, 2864), (sym_c_style_comment, 3), (sym_pascal_style_comment, 3),
     (sym_pragma, 3), (sym__minus_before_base, 2866), (sym__plus_before_base, 2866)]"

lemma ts_parse_row_1143_scan: "row_scan tokens_2_1 0 ts_parse_row_1143 = Some (Suc (Suc (Suc (Suc (Suc (Suc 0))))))"
  unfolding ts_parse_row_1143_def by simp

text \<open>Lines 181901 to 181993.\<close>

definition ts_parse_row_1144 :: parse_row where
  "ts_parse_row_1144 =
    [(aux_sym_relative_offset_repeat1, 1144), (sym_identifier, 2868), (anon_sym_EQ, 2870),
     (aux_sym_ERR_unexpected_this_in_path_token1, 2868),
     (aux_sym_ERR_unexpected_super_in_path_token1, 2868), (sym_line_comment, 3),
     (anon_sym_LBRACE, 2868), (anon_sym_LPAREN, 2870), (aux_sym_test_pragma_token1, 2870),
     (aux_sym_once_pragma_token1, 2870), (aux_sym_must_call_pragma_token1, 2870),
     (aux_sym_export_pragma_token1, 2870), (sym_unsigned_int, 2868),
     (sym__explicit_signed_int, 2868), (sym_binary_int, 2870), (sym_octal_int, 2870),
     (sym_hex_int, 2870), (sym__explicit_signed_real, 2870), (sym_real_value, 2870),
     (aux_sym_bool_literal_with_string_token1, 2870),
     (aux_sym_bool_literal_with_string_token2, 2868),
     (aux_sym_bool_literal_with_string_token3, 2868), (sym_s_byte_char_str, 2870),
     (sym_d_byte_char_str, 2870), (aux_sym_time_token1, 2870), (anon_sym_PLUS, 2868),
     (anon_sym_DASH, 2868), (aux_sym_ltime_token1, 2870), (aux_sym_tod_token1, 2870),
     (aux_sym_ltod_token1, 2870), (aux_sym_short_date_token1, 2870),
     (aux_sym_long_date_token1, 2870), (aux_sym_short_date_and_time_token1, 2870),
     (aux_sym_long_date_and_time_token1, 2870), (aux_sym_sign_int_type_name_token1, 2868),
     (aux_sym_sign_int_type_name_token2, 2868), (aux_sym_sign_int_type_name_token3, 2868),
     (aux_sym_sign_int_type_name_token4, 2868), (aux_sym_unsign_int_type_name_token1, 2868),
     (aux_sym_unsign_int_type_name_token2, 2868), (aux_sym_unsign_int_type_name_token3, 2868),
     (aux_sym_unsign_int_type_name_token4, 2868), (aux_sym_real_type_name_token1, 2868),
     (aux_sym_real_type_name_token2, 2868), (aux_sym_string_name_token1, 2868),
     (aux_sym_char_name_token1, 2868), (aux_sym_multibits_type_name_token1, 2868),
     (aux_sym_multibits_type_name_token2, 2868), (aux_sym_multibits_type_name_token3, 2868),
     (aux_sym_multibits_type_name_token4, 2868), (anon_sym_SEMI, 2870), (anon_sym_PERCENT, 2870),
     (anon_sym_STAR, 2868), (anon_sym_DOT, 2872), (aux_sym_ref_value_token1, 2868),
     (aux_sym_ref_addr_token1, 2868), (anon_sym_DOT_DOT_DOT, 2870),
     (aux_sym_method_decl_token1, 2868), (anon_sym_SLASH, 2868), (anon_sym_STAR_STAR, 2870),
     (anon_sym_AMP, 2870), (anon_sym_LT_GT, 2870), (anon_sym_LT, 2868), (anon_sym_GT, 2868),
     (anon_sym_LT_EQ, 2870), (anon_sym_GT_EQ, 2870), (aux_sym_or_operator_token1, 2868),
     (aux_sym_xor_operator_token1, 2868), (aux_sym_and_operator_token1, 2868),
     (aux_sym_mult_token1, 2868), (aux_sym_unary_token1, 2868), (aux_sym__stmt_token1, 2868),
     (aux_sym__stmt_token2, 2868), (aux_sym__stmt_token3, 2868), (aux_sym_if_stmt_token1, 2868),
     (aux_sym_if_stmt_token3, 2868), (aux_sym_case_stmt_token1, 2868),
     (aux_sym_case_stmt_token2, 2868), (aux_sym_for_stmt_token1, 2868),
     (aux_sym_while_stmt_token1, 2868), (aux_sym_repeat_stmt_token1, 2868),
     (aux_sym_raise_stmt_token1, 2868), (aux_sym_try_stmt_token1, 2868),
     (aux_sym_try_stmt_token2, 2868), (aux_sym_catch_clause_token1, 2868),
     (aux_sym_finally_clause_token1, 2868), (sym_c_style_comment, 3), (sym_pascal_style_comment, 3),
     (sym_pragma, 3), (sym__minus_before_base, 2870), (sym__plus_before_base, 2870)]"

lemma ts_parse_row_1144_scan: "row_scan tokens_2_1 0 ts_parse_row_1144 = Some (Suc (Suc (Suc (Suc (Suc (Suc 0))))))"
  unfolding ts_parse_row_1144_def by simp

text \<open>Lines 181994 to 182086.\<close>

definition ts_parse_row_1145 :: parse_row where
  "ts_parse_row_1145 =
    [(sym_identifier, 2678), (anon_sym_EQ, 2680),
     (aux_sym_ERR_unexpected_this_in_path_token1, 2678),
     (aux_sym_ERR_unexpected_super_in_path_token1, 2678), (sym_line_comment, 3),
     (anon_sym_LBRACE, 2678), (anon_sym_LPAREN, 2680), (aux_sym_test_pragma_token1, 2680),
     (aux_sym_once_pragma_token1, 2680), (aux_sym_must_call_pragma_token1, 2680),
     (aux_sym_export_pragma_token1, 2680), (anon_sym_POUND, 2680), (sym_unsigned_int, 2678),
     (sym__explicit_signed_int, 2678), (sym_binary_int, 2680), (sym_octal_int, 2680),
     (sym_hex_int, 2680), (sym__explicit_signed_real, 2680), (sym_real_value, 2680),
     (aux_sym_bool_literal_with_string_token1, 2680),
     (aux_sym_bool_literal_with_string_token2, 2678),
     (aux_sym_bool_literal_with_string_token3, 2678), (sym_s_byte_char_str, 2680),
     (sym_d_byte_char_str, 2680), (aux_sym_time_token1, 2680), (anon_sym_PLUS, 2678),
     (anon_sym_DASH, 2678), (aux_sym_ltime_token1, 2680), (aux_sym_tod_token1, 2680),
     (aux_sym_ltod_token1, 2680), (aux_sym_short_date_token1, 2680),
     (aux_sym_long_date_token1, 2680), (aux_sym_short_date_and_time_token1, 2680),
     (aux_sym_long_date_and_time_token1, 2680), (aux_sym_sign_int_type_name_token1, 2678),
     (aux_sym_sign_int_type_name_token2, 2678), (aux_sym_sign_int_type_name_token3, 2678),
     (aux_sym_sign_int_type_name_token4, 2678), (aux_sym_unsign_int_type_name_token1, 2678),
     (aux_sym_unsign_int_type_name_token2, 2678), (aux_sym_unsign_int_type_name_token3, 2678),
     (aux_sym_unsign_int_type_name_token4, 2678), (aux_sym_real_type_name_token1, 2678),
     (aux_sym_real_type_name_token2, 2678), (aux_sym_string_name_token1, 2678),
     (aux_sym_char_name_token1, 2678), (aux_sym_multibits_type_name_token1, 2678),
     (aux_sym_multibits_type_name_token2, 2678), (aux_sym_multibits_type_name_token3, 2678),
     (aux_sym_multibits_type_name_token4, 2678), (anon_sym_SEMI, 2680), (anon_sym_PERCENT, 2680),
     (anon_sym_STAR, 2678), (anon_sym_DOT, 2678), (aux_sym_ref_value_token1, 2678),
     (aux_sym_ref_addr_token1, 2678), (anon_sym_DOT_DOT_DOT, 2680),
     (aux_sym_method_decl_token1, 2678), (anon_sym_SLASH, 2678), (anon_sym_STAR_STAR, 2680),
     (anon_sym_AMP, 2680), (anon_sym_LT_GT, 2680), (anon_sym_LT, 2678), (anon_sym_GT, 2678),
     (anon_sym_LT_EQ, 2680), (anon_sym_GT_EQ, 2680), (aux_sym_or_operator_token1, 2678),
     (aux_sym_xor_operator_token1, 2678), (aux_sym_and_operator_token1, 2678),
     (aux_sym_mult_token1, 2678), (aux_sym_unary_token1, 2678), (aux_sym__stmt_token1, 2678),
     (aux_sym__stmt_token2, 2678), (aux_sym__stmt_token3, 2678), (aux_sym_if_stmt_token1, 2678),
     (aux_sym_if_stmt_token3, 2678), (aux_sym_case_stmt_token1, 2678),
     (aux_sym_case_stmt_token2, 2678), (aux_sym_for_stmt_token1, 2678),
     (aux_sym_while_stmt_token1, 2678), (aux_sym_repeat_stmt_token1, 2678),
     (aux_sym_raise_stmt_token1, 2678), (aux_sym_try_stmt_token1, 2678),
     (aux_sym_try_stmt_token2, 2678), (aux_sym_catch_clause_token1, 2678),
     (aux_sym_finally_clause_token1, 2678), (sym_c_style_comment, 3), (sym_pascal_style_comment, 3),
     (sym_pragma, 3), (sym__minus_before_base, 2680), (sym__plus_before_base, 2680)]"

lemma ts_parse_row_1145_scan: "row_scan tokens_2_1 0 ts_parse_row_1145 = Some (Suc (Suc (Suc (Suc (Suc (Suc 0))))))"
  unfolding ts_parse_row_1145_def by simp

text \<open>Lines 182087 to 182179.\<close>

definition ts_parse_row_1146 :: parse_row where
  "ts_parse_row_1146 =
    [(sym_multibit_part_access, 1159), (sym_identifier, 2875), (anon_sym_EQ, 2877),
     (aux_sym_ERR_unexpected_this_in_path_token1, 2875),
     (aux_sym_ERR_unexpected_super_in_path_token1, 2875), (sym_line_comment, 3),
     (anon_sym_LBRACE, 2875), (anon_sym_LPAREN, 2877), (aux_sym_test_pragma_token1, 2877),
     (aux_sym_once_pragma_token1, 2877), (aux_sym_must_call_pragma_token1, 2877),
     (aux_sym_export_pragma_token1, 2877), (sym_unsigned_int, 2875),
     (sym__explicit_signed_int, 2875), (sym_binary_int, 2877), (sym_octal_int, 2877),
     (sym_hex_int, 2877), (sym__explicit_signed_real, 2877), (sym_real_value, 2877),
     (aux_sym_bool_literal_with_string_token1, 2877),
     (aux_sym_bool_literal_with_string_token2, 2875),
     (aux_sym_bool_literal_with_string_token3, 2875), (sym_s_byte_char_str, 2877),
     (sym_d_byte_char_str, 2877), (aux_sym_time_token1, 2877), (anon_sym_PLUS, 2875),
     (anon_sym_DASH, 2875), (aux_sym_ltime_token1, 2877), (aux_sym_tod_token1, 2877),
     (aux_sym_ltod_token1, 2877), (aux_sym_short_date_token1, 2877),
     (aux_sym_long_date_token1, 2877), (aux_sym_short_date_and_time_token1, 2877),
     (aux_sym_long_date_and_time_token1, 2877), (aux_sym_sign_int_type_name_token1, 2875),
     (aux_sym_sign_int_type_name_token2, 2875), (aux_sym_sign_int_type_name_token3, 2875),
     (aux_sym_sign_int_type_name_token4, 2875), (aux_sym_unsign_int_type_name_token1, 2875),
     (aux_sym_unsign_int_type_name_token2, 2875), (aux_sym_unsign_int_type_name_token3, 2875),
     (aux_sym_unsign_int_type_name_token4, 2875), (aux_sym_real_type_name_token1, 2875),
     (aux_sym_real_type_name_token2, 2875), (aux_sym_string_name_token1, 2875),
     (aux_sym_char_name_token1, 2875), (aux_sym_multibits_type_name_token1, 2875),
     (aux_sym_multibits_type_name_token2, 2875), (aux_sym_multibits_type_name_token3, 2875),
     (aux_sym_multibits_type_name_token4, 2875), (anon_sym_SEMI, 2877), (anon_sym_PERCENT, 2877),
     (anon_sym_STAR, 2875), (anon_sym_DOT, 2879), (aux_sym_ref_value_token1, 2875),
     (aux_sym_ref_addr_token1, 2875), (anon_sym_DOT_DOT_DOT, 2877),
     (aux_sym_method_decl_token1, 2875), (anon_sym_SLASH, 2875), (anon_sym_STAR_STAR, 2877),
     (anon_sym_AMP, 2877), (anon_sym_LT_GT, 2877), (anon_sym_LT, 2875), (anon_sym_GT, 2875),
     (anon_sym_LT_EQ, 2877), (anon_sym_GT_EQ, 2877), (aux_sym_or_operator_token1, 2875),
     (aux_sym_xor_operator_token1, 2875), (aux_sym_and_operator_token1, 2875),
     (aux_sym_mult_token1, 2875), (aux_sym_unary_token1, 2875), (aux_sym__stmt_token1, 2875),
     (aux_sym__stmt_token2, 2875), (aux_sym__stmt_token3, 2875), (aux_sym_if_stmt_token1, 2875),
     (aux_sym_if_stmt_token3, 2875), (aux_sym_case_stmt_token1, 2875),
     (aux_sym_case_stmt_token2, 2875), (aux_sym_for_stmt_token1, 2875),
     (aux_sym_while_stmt_token1, 2875), (aux_sym_repeat_stmt_token1, 2875),
     (aux_sym_raise_stmt_token1, 2875), (aux_sym_try_stmt_token1, 2875),
     (aux_sym_try_stmt_token2, 2875), (aux_sym_catch_clause_token1, 2875),
     (aux_sym_finally_clause_token1, 2875), (sym_c_style_comment, 3), (sym_pascal_style_comment, 3),
     (sym_pragma, 3), (sym__minus_before_base, 2877), (sym__plus_before_base, 2877)]"

lemma ts_parse_row_1146_scan: "row_scan tokens_2_1 0 ts_parse_row_1146 = Some (Suc (Suc (Suc (Suc (Suc (Suc 0))))))"
  unfolding ts_parse_row_1146_def by simp

text \<open>Lines 182180 to 182272.\<close>

definition ts_parse_row_1147 :: parse_row where
  "ts_parse_row_1147 =
    [(sym_identifier, 2881), (anon_sym_EQ, 2883),
     (aux_sym_ERR_unexpected_this_in_path_token1, 2881),
     (aux_sym_ERR_unexpected_super_in_path_token1, 2881), (sym_line_comment, 3),
     (anon_sym_LBRACE, 2881), (anon_sym_LPAREN, 2883), (aux_sym_test_pragma_token1, 2883),
     (aux_sym_once_pragma_token1, 2883), (aux_sym_must_call_pragma_token1, 2883),
     (aux_sym_export_pragma_token1, 2883), (anon_sym_POUND, 2883), (sym_unsigned_int, 2881),
     (sym__explicit_signed_int, 2881), (sym_binary_int, 2883), (sym_octal_int, 2883),
     (sym_hex_int, 2883), (sym__explicit_signed_real, 2883), (sym_real_value, 2883),
     (aux_sym_bool_literal_with_string_token1, 2883),
     (aux_sym_bool_literal_with_string_token2, 2881),
     (aux_sym_bool_literal_with_string_token3, 2881), (sym_s_byte_char_str, 2883),
     (sym_d_byte_char_str, 2883), (aux_sym_time_token1, 2883), (anon_sym_PLUS, 2881),
     (anon_sym_DASH, 2881), (aux_sym_ltime_token1, 2883), (aux_sym_tod_token1, 2883),
     (aux_sym_ltod_token1, 2883), (aux_sym_short_date_token1, 2883),
     (aux_sym_long_date_token1, 2883), (aux_sym_short_date_and_time_token1, 2883),
     (aux_sym_long_date_and_time_token1, 2883), (aux_sym_sign_int_type_name_token1, 2881),
     (aux_sym_sign_int_type_name_token2, 2881), (aux_sym_sign_int_type_name_token3, 2881),
     (aux_sym_sign_int_type_name_token4, 2881), (aux_sym_unsign_int_type_name_token1, 2881),
     (aux_sym_unsign_int_type_name_token2, 2881), (aux_sym_unsign_int_type_name_token3, 2881),
     (aux_sym_unsign_int_type_name_token4, 2881), (aux_sym_real_type_name_token1, 2881),
     (aux_sym_real_type_name_token2, 2881), (aux_sym_string_name_token1, 2881),
     (aux_sym_char_name_token1, 2881), (aux_sym_multibits_type_name_token1, 2881),
     (aux_sym_multibits_type_name_token2, 2881), (aux_sym_multibits_type_name_token3, 2881),
     (aux_sym_multibits_type_name_token4, 2881), (anon_sym_SEMI, 2883), (anon_sym_PERCENT, 2883),
     (anon_sym_STAR, 2881), (anon_sym_DOT, 2885), (aux_sym_ref_value_token1, 2881),
     (aux_sym_ref_addr_token1, 2881), (anon_sym_DOT_DOT_DOT, 2883),
     (aux_sym_method_decl_token1, 2881), (anon_sym_SLASH, 2881), (anon_sym_STAR_STAR, 2883),
     (anon_sym_AMP, 2883), (anon_sym_LT_GT, 2883), (anon_sym_LT, 2881), (anon_sym_GT, 2881),
     (anon_sym_LT_EQ, 2883), (anon_sym_GT_EQ, 2883), (aux_sym_or_operator_token1, 2881),
     (aux_sym_xor_operator_token1, 2881), (aux_sym_and_operator_token1, 2881),
     (aux_sym_mult_token1, 2881), (aux_sym_unary_token1, 2881), (aux_sym__stmt_token1, 2881),
     (aux_sym__stmt_token2, 2881), (aux_sym__stmt_token3, 2881), (aux_sym_if_stmt_token1, 2881),
     (aux_sym_if_stmt_token3, 2881), (aux_sym_case_stmt_token1, 2881),
     (aux_sym_case_stmt_token2, 2881), (aux_sym_for_stmt_token1, 2881),
     (aux_sym_while_stmt_token1, 2881), (aux_sym_repeat_stmt_token1, 2881),
     (aux_sym_raise_stmt_token1, 2881), (aux_sym_try_stmt_token1, 2881),
     (aux_sym_try_stmt_token2, 2881), (aux_sym_catch_clause_token1, 2881),
     (aux_sym_finally_clause_token1, 2881), (sym_c_style_comment, 3), (sym_pascal_style_comment, 3),
     (sym_pragma, 3), (sym__minus_before_base, 2883), (sym__plus_before_base, 2883)]"

lemma ts_parse_row_1147_scan: "row_scan tokens_2_1 0 ts_parse_row_1147 = Some (Suc (Suc (Suc (Suc (Suc (Suc 0))))))"
  unfolding ts_parse_row_1147_def by simp

text \<open>Lines 182273 to 182364.\<close>

definition ts_parse_row_1148 :: parse_row where
  "ts_parse_row_1148 =
    [(sym_identifier, 2888), (anon_sym_EQ, 2890),
     (aux_sym_ERR_unexpected_this_in_path_token1, 2888),
     (aux_sym_ERR_unexpected_super_in_path_token1, 2888), (sym_line_comment, 3),
     (anon_sym_LBRACE, 2888), (anon_sym_LPAREN, 2890), (aux_sym_test_pragma_token1, 2890),
     (aux_sym_once_pragma_token1, 2890), (aux_sym_must_call_pragma_token1, 2890),
     (aux_sym_export_pragma_token1, 2890), (sym_unsigned_int, 2888),
     (sym__explicit_signed_int, 2888), (sym_binary_int, 2890), (sym_octal_int, 2890),
     (sym_hex_int, 2890), (sym__explicit_signed_real, 2890), (sym_real_value, 2890),
     (aux_sym_bool_literal_with_string_token1, 2890),
     (aux_sym_bool_literal_with_string_token2, 2888),
     (aux_sym_bool_literal_with_string_token3, 2888), (sym_s_byte_char_str, 2890),
     (sym_d_byte_char_str, 2890), (aux_sym_time_token1, 2890), (anon_sym_PLUS, 2888),
     (anon_sym_DASH, 2888), (aux_sym_ltime_token1, 2890), (aux_sym_tod_token1, 2890),
     (aux_sym_ltod_token1, 2890), (aux_sym_short_date_token1, 2890),
     (aux_sym_long_date_token1, 2890), (aux_sym_short_date_and_time_token1, 2890),
     (aux_sym_long_date_and_time_token1, 2890), (aux_sym_sign_int_type_name_token1, 2888),
     (aux_sym_sign_int_type_name_token2, 2888), (aux_sym_sign_int_type_name_token3, 2888),
     (aux_sym_sign_int_type_name_token4, 2888), (aux_sym_unsign_int_type_name_token1, 2888),
     (aux_sym_unsign_int_type_name_token2, 2888), (aux_sym_unsign_int_type_name_token3, 2888),
     (aux_sym_unsign_int_type_name_token4, 2888), (aux_sym_real_type_name_token1, 2888),
     (aux_sym_real_type_name_token2, 2888), (aux_sym_string_name_token1, 2888),
     (aux_sym_char_name_token1, 2888), (aux_sym_multibits_type_name_token1, 2888),
     (aux_sym_multibits_type_name_token2, 2888), (aux_sym_multibits_type_name_token3, 2888),
     (aux_sym_multibits_type_name_token4, 2888), (anon_sym_SEMI, 2890), (anon_sym_PERCENT, 2890),
     (anon_sym_STAR, 2888), (anon_sym_DOT, 2888), (aux_sym_ref_value_token1, 2888),
     (aux_sym_ref_addr_token1, 2888), (anon_sym_DOT_DOT_DOT, 2890),
     (aux_sym_method_decl_token1, 2888), (anon_sym_SLASH, 2888), (anon_sym_STAR_STAR, 2890),
     (anon_sym_AMP, 2890), (anon_sym_LT_GT, 2890), (anon_sym_LT, 2888), (anon_sym_GT, 2888),
     (anon_sym_LT_EQ, 2890), (anon_sym_GT_EQ, 2890), (aux_sym_or_operator_token1, 2888),
     (aux_sym_xor_operator_token1, 2888), (aux_sym_and_operator_token1, 2888),
     (aux_sym_mult_token1, 2888), (aux_sym_unary_token1, 2888), (aux_sym__stmt_token1, 2888),
     (aux_sym__stmt_token2, 2888), (aux_sym__stmt_token3, 2888), (aux_sym_if_stmt_token1, 2888),
     (aux_sym_if_stmt_token3, 2888), (aux_sym_case_stmt_token1, 2888),
     (aux_sym_case_stmt_token2, 2888), (aux_sym_for_stmt_token1, 2888),
     (aux_sym_while_stmt_token1, 2888), (aux_sym_repeat_stmt_token1, 2888),
     (aux_sym_raise_stmt_token1, 2888), (aux_sym_try_stmt_token1, 2888),
     (aux_sym_try_stmt_token2, 2888), (aux_sym_catch_clause_token1, 2888),
     (aux_sym_finally_clause_token1, 2888), (sym_c_style_comment, 3), (sym_pascal_style_comment, 3),
     (sym_pragma, 3), (sym__minus_before_base, 2890), (sym__plus_before_base, 2890)]"

lemma ts_parse_row_1148_scan: "row_scan tokens_2_1 0 ts_parse_row_1148 = Some (Suc (Suc (Suc (Suc (Suc (Suc 0))))))"
  unfolding ts_parse_row_1148_def by simp

text \<open>Lines 182365 to 182456.\<close>

definition ts_parse_row_1149 :: parse_row where
  "ts_parse_row_1149 =
    [(sym_identifier, 2837), (anon_sym_EQ, 2839),
     (aux_sym_ERR_unexpected_this_in_path_token1, 2837),
     (aux_sym_ERR_unexpected_super_in_path_token1, 2837), (sym_line_comment, 3),
     (anon_sym_LBRACE, 2837), (anon_sym_LPAREN, 2839), (aux_sym_test_pragma_token1, 2839),
     (aux_sym_once_pragma_token1, 2839), (aux_sym_must_call_pragma_token1, 2839),
     (aux_sym_export_pragma_token1, 2839), (sym_unsigned_int, 2837),
     (sym__explicit_signed_int, 2837), (sym_binary_int, 2839), (sym_octal_int, 2839),
     (sym_hex_int, 2839), (sym__explicit_signed_real, 2839), (sym_real_value, 2839),
     (aux_sym_bool_literal_with_string_token1, 2839),
     (aux_sym_bool_literal_with_string_token2, 2837),
     (aux_sym_bool_literal_with_string_token3, 2837), (sym_s_byte_char_str, 2839),
     (sym_d_byte_char_str, 2839), (aux_sym_time_token1, 2839), (anon_sym_PLUS, 2837),
     (anon_sym_DASH, 2837), (aux_sym_ltime_token1, 2839), (aux_sym_tod_token1, 2839),
     (aux_sym_ltod_token1, 2839), (aux_sym_short_date_token1, 2839),
     (aux_sym_long_date_token1, 2839), (aux_sym_short_date_and_time_token1, 2839),
     (aux_sym_long_date_and_time_token1, 2839), (aux_sym_sign_int_type_name_token1, 2837),
     (aux_sym_sign_int_type_name_token2, 2837), (aux_sym_sign_int_type_name_token3, 2837),
     (aux_sym_sign_int_type_name_token4, 2837), (aux_sym_unsign_int_type_name_token1, 2837),
     (aux_sym_unsign_int_type_name_token2, 2837), (aux_sym_unsign_int_type_name_token3, 2837),
     (aux_sym_unsign_int_type_name_token4, 2837), (aux_sym_real_type_name_token1, 2837),
     (aux_sym_real_type_name_token2, 2837), (aux_sym_string_name_token1, 2837),
     (aux_sym_char_name_token1, 2837), (aux_sym_multibits_type_name_token1, 2837),
     (aux_sym_multibits_type_name_token2, 2837), (aux_sym_multibits_type_name_token3, 2837),
     (aux_sym_multibits_type_name_token4, 2837), (anon_sym_SEMI, 2839), (anon_sym_PERCENT, 2839),
     (anon_sym_STAR, 2837), (anon_sym_DOT, 2837), (aux_sym_ref_value_token1, 2837),
     (aux_sym_ref_addr_token1, 2837), (anon_sym_DOT_DOT_DOT, 2839),
     (aux_sym_method_decl_token1, 2837), (anon_sym_SLASH, 2837), (anon_sym_STAR_STAR, 2839),
     (anon_sym_AMP, 2839), (anon_sym_LT_GT, 2839), (anon_sym_LT, 2837), (anon_sym_GT, 2837),
     (anon_sym_LT_EQ, 2839), (anon_sym_GT_EQ, 2839), (aux_sym_or_operator_token1, 2837),
     (aux_sym_xor_operator_token1, 2837), (aux_sym_and_operator_token1, 2837),
     (aux_sym_mult_token1, 2837), (aux_sym_unary_token1, 2837), (aux_sym__stmt_token1, 2837),
     (aux_sym__stmt_token2, 2837), (aux_sym__stmt_token3, 2837), (aux_sym_if_stmt_token1, 2837),
     (aux_sym_if_stmt_token3, 2837), (aux_sym_case_stmt_token1, 2837),
     (aux_sym_case_stmt_token2, 2837), (aux_sym_for_stmt_token1, 2837),
     (aux_sym_while_stmt_token1, 2837), (aux_sym_repeat_stmt_token1, 2837),
     (aux_sym_raise_stmt_token1, 2837), (aux_sym_try_stmt_token1, 2837),
     (aux_sym_try_stmt_token2, 2837), (aux_sym_catch_clause_token1, 2837),
     (aux_sym_finally_clause_token1, 2837), (sym_c_style_comment, 3), (sym_pascal_style_comment, 3),
     (sym_pragma, 3), (sym__minus_before_base, 2839), (sym__plus_before_base, 2839)]"

lemma ts_parse_row_1149_scan: "row_scan tokens_2_1 0 ts_parse_row_1149 = Some (Suc (Suc (Suc (Suc (Suc (Suc 0))))))"
  unfolding ts_parse_row_1149_def by simp

text \<open>Lines 182457 to 182548.\<close>

definition ts_parse_row_1150 :: parse_row where
  "ts_parse_row_1150 =
    [(sym_identifier, 2868), (anon_sym_EQ, 2870),
     (aux_sym_ERR_unexpected_this_in_path_token1, 2868),
     (aux_sym_ERR_unexpected_super_in_path_token1, 2868), (sym_line_comment, 3),
     (anon_sym_LBRACE, 2868), (anon_sym_LPAREN, 2870), (aux_sym_test_pragma_token1, 2870),
     (aux_sym_once_pragma_token1, 2870), (aux_sym_must_call_pragma_token1, 2870),
     (aux_sym_export_pragma_token1, 2870), (sym_unsigned_int, 2868),
     (sym__explicit_signed_int, 2868), (sym_binary_int, 2870), (sym_octal_int, 2870),
     (sym_hex_int, 2870), (sym__explicit_signed_real, 2870), (sym_real_value, 2870),
     (aux_sym_bool_literal_with_string_token1, 2870),
     (aux_sym_bool_literal_with_string_token2, 2868),
     (aux_sym_bool_literal_with_string_token3, 2868), (sym_s_byte_char_str, 2870),
     (sym_d_byte_char_str, 2870), (aux_sym_time_token1, 2870), (anon_sym_PLUS, 2868),
     (anon_sym_DASH, 2868), (aux_sym_ltime_token1, 2870), (aux_sym_tod_token1, 2870),
     (aux_sym_ltod_token1, 2870), (aux_sym_short_date_token1, 2870),
     (aux_sym_long_date_token1, 2870), (aux_sym_short_date_and_time_token1, 2870),
     (aux_sym_long_date_and_time_token1, 2870), (aux_sym_sign_int_type_name_token1, 2868),
     (aux_sym_sign_int_type_name_token2, 2868), (aux_sym_sign_int_type_name_token3, 2868),
     (aux_sym_sign_int_type_name_token4, 2868), (aux_sym_unsign_int_type_name_token1, 2868),
     (aux_sym_unsign_int_type_name_token2, 2868), (aux_sym_unsign_int_type_name_token3, 2868),
     (aux_sym_unsign_int_type_name_token4, 2868), (aux_sym_real_type_name_token1, 2868),
     (aux_sym_real_type_name_token2, 2868), (aux_sym_string_name_token1, 2868),
     (aux_sym_char_name_token1, 2868), (aux_sym_multibits_type_name_token1, 2868),
     (aux_sym_multibits_type_name_token2, 2868), (aux_sym_multibits_type_name_token3, 2868),
     (aux_sym_multibits_type_name_token4, 2868), (anon_sym_SEMI, 2870), (anon_sym_PERCENT, 2870),
     (anon_sym_STAR, 2868), (anon_sym_DOT, 2868), (aux_sym_ref_value_token1, 2868),
     (aux_sym_ref_addr_token1, 2868), (anon_sym_DOT_DOT_DOT, 2870),
     (aux_sym_method_decl_token1, 2868), (anon_sym_SLASH, 2868), (anon_sym_STAR_STAR, 2870),
     (anon_sym_AMP, 2870), (anon_sym_LT_GT, 2870), (anon_sym_LT, 2868), (anon_sym_GT, 2868),
     (anon_sym_LT_EQ, 2870), (anon_sym_GT_EQ, 2870), (aux_sym_or_operator_token1, 2868),
     (aux_sym_xor_operator_token1, 2868), (aux_sym_and_operator_token1, 2868),
     (aux_sym_mult_token1, 2868), (aux_sym_unary_token1, 2868), (aux_sym__stmt_token1, 2868),
     (aux_sym__stmt_token2, 2868), (aux_sym__stmt_token3, 2868), (aux_sym_if_stmt_token1, 2868),
     (aux_sym_if_stmt_token3, 2868), (aux_sym_case_stmt_token1, 2868),
     (aux_sym_case_stmt_token2, 2868), (aux_sym_for_stmt_token1, 2868),
     (aux_sym_while_stmt_token1, 2868), (aux_sym_repeat_stmt_token1, 2868),
     (aux_sym_raise_stmt_token1, 2868), (aux_sym_try_stmt_token1, 2868),
     (aux_sym_try_stmt_token2, 2868), (aux_sym_catch_clause_token1, 2868),
     (aux_sym_finally_clause_token1, 2868), (sym_c_style_comment, 3), (sym_pascal_style_comment, 3),
     (sym_pragma, 3), (sym__minus_before_base, 2870), (sym__plus_before_base, 2870)]"

lemma ts_parse_row_1150_scan: "row_scan tokens_2_1 0 ts_parse_row_1150 = Some (Suc (Suc (Suc (Suc (Suc (Suc 0))))))"
  unfolding ts_parse_row_1150_def by simp

text \<open>Lines 182549 to 182640.\<close>

definition ts_parse_row_1151 :: parse_row where
  "ts_parse_row_1151 =
    [(sym_identifier, 2892), (anon_sym_EQ, 2894),
     (aux_sym_ERR_unexpected_this_in_path_token1, 2892),
     (aux_sym_ERR_unexpected_super_in_path_token1, 2892), (sym_line_comment, 3),
     (anon_sym_LBRACE, 2892), (anon_sym_LPAREN, 2894), (aux_sym_test_pragma_token1, 2894),
     (aux_sym_once_pragma_token1, 2894), (aux_sym_must_call_pragma_token1, 2894),
     (aux_sym_export_pragma_token1, 2894), (sym_unsigned_int, 2892),
     (sym__explicit_signed_int, 2892), (sym_binary_int, 2894), (sym_octal_int, 2894),
     (sym_hex_int, 2894), (sym__explicit_signed_real, 2894), (sym_real_value, 2894),
     (aux_sym_bool_literal_with_string_token1, 2894),
     (aux_sym_bool_literal_with_string_token2, 2892),
     (aux_sym_bool_literal_with_string_token3, 2892), (sym_s_byte_char_str, 2894),
     (sym_d_byte_char_str, 2894), (aux_sym_time_token1, 2894), (anon_sym_PLUS, 2892),
     (anon_sym_DASH, 2892), (aux_sym_ltime_token1, 2894), (aux_sym_tod_token1, 2894),
     (aux_sym_ltod_token1, 2894), (aux_sym_short_date_token1, 2894),
     (aux_sym_long_date_token1, 2894), (aux_sym_short_date_and_time_token1, 2894),
     (aux_sym_long_date_and_time_token1, 2894), (aux_sym_sign_int_type_name_token1, 2892),
     (aux_sym_sign_int_type_name_token2, 2892), (aux_sym_sign_int_type_name_token3, 2892),
     (aux_sym_sign_int_type_name_token4, 2892), (aux_sym_unsign_int_type_name_token1, 2892),
     (aux_sym_unsign_int_type_name_token2, 2892), (aux_sym_unsign_int_type_name_token3, 2892),
     (aux_sym_unsign_int_type_name_token4, 2892), (aux_sym_real_type_name_token1, 2892),
     (aux_sym_real_type_name_token2, 2892), (aux_sym_string_name_token1, 2892),
     (aux_sym_char_name_token1, 2892), (aux_sym_multibits_type_name_token1, 2892),
     (aux_sym_multibits_type_name_token2, 2892), (aux_sym_multibits_type_name_token3, 2892),
     (aux_sym_multibits_type_name_token4, 2892), (anon_sym_SEMI, 2894), (anon_sym_PERCENT, 2894),
     (anon_sym_STAR, 2892), (anon_sym_DOT, 2892), (aux_sym_ref_value_token1, 2892),
     (aux_sym_ref_addr_token1, 2892), (anon_sym_DOT_DOT_DOT, 2894),
     (aux_sym_method_decl_token1, 2892), (anon_sym_SLASH, 2892), (anon_sym_STAR_STAR, 2894),
     (anon_sym_AMP, 2894), (anon_sym_LT_GT, 2894), (anon_sym_LT, 2892), (anon_sym_GT, 2892),
     (anon_sym_LT_EQ, 2894), (anon_sym_GT_EQ, 2894), (aux_sym_or_operator_token1, 2892),
     (aux_sym_xor_operator_token1, 2892), (aux_sym_and_operator_token1, 2892),
     (aux_sym_mult_token1, 2892), (aux_sym_unary_token1, 2892), (aux_sym__stmt_token1, 2892),
     (aux_sym__stmt_token2, 2892), (aux_sym__stmt_token3, 2892), (aux_sym_if_stmt_token1, 2892),
     (aux_sym_if_stmt_token3, 2892), (aux_sym_case_stmt_token1, 2892),
     (aux_sym_case_stmt_token2, 2892), (aux_sym_for_stmt_token1, 2892),
     (aux_sym_while_stmt_token1, 2892), (aux_sym_repeat_stmt_token1, 2892),
     (aux_sym_raise_stmt_token1, 2892), (aux_sym_try_stmt_token1, 2892),
     (aux_sym_try_stmt_token2, 2892), (aux_sym_catch_clause_token1, 2892),
     (aux_sym_finally_clause_token1, 2892), (sym_c_style_comment, 3), (sym_pascal_style_comment, 3),
     (sym_pragma, 3), (sym__minus_before_base, 2894), (sym__plus_before_base, 2894)]"

lemma ts_parse_row_1151_scan: "row_scan tokens_2_1 0 ts_parse_row_1151 = Some (Suc (Suc (Suc (Suc (Suc (Suc 0))))))"
  unfolding ts_parse_row_1151_def by simp

text \<open>Lines 182641 to 182731.\<close>

definition ts_parse_row_1152 :: parse_row where
  "ts_parse_row_1152 =
    [(sym_identifier, 2896), (anon_sym_EQ, 2898),
     (aux_sym_ERR_unexpected_this_in_path_token1, 2896),
     (aux_sym_ERR_unexpected_super_in_path_token1, 2896), (sym_line_comment, 3),
     (anon_sym_LBRACE, 2896), (anon_sym_LPAREN, 2898), (aux_sym_test_pragma_token1, 2898),
     (aux_sym_once_pragma_token1, 2898), (aux_sym_must_call_pragma_token1, 2898),
     (aux_sym_export_pragma_token1, 2898), (sym_unsigned_int, 2896),
     (sym__explicit_signed_int, 2896), (sym_binary_int, 2898), (sym_octal_int, 2898),
     (sym_hex_int, 2898), (sym__explicit_signed_real, 2898), (sym_real_value, 2898),
     (aux_sym_bool_literal_with_string_token1, 2898),
     (aux_sym_bool_literal_with_string_token2, 2896),
     (aux_sym_bool_literal_with_string_token3, 2896), (sym_s_byte_char_str, 2898),
     (sym_d_byte_char_str, 2898), (aux_sym_time_token1, 2898), (anon_sym_PLUS, 2896),
     (anon_sym_DASH, 2896), (aux_sym_ltime_token1, 2898), (aux_sym_tod_token1, 2898),
     (aux_sym_ltod_token1, 2898), (aux_sym_short_date_token1, 2898),
     (aux_sym_long_date_token1, 2898), (aux_sym_short_date_and_time_token1, 2898),
     (aux_sym_long_date_and_time_token1, 2898), (aux_sym_sign_int_type_name_token1, 2896),
     (aux_sym_sign_int_type_name_token2, 2896), (aux_sym_sign_int_type_name_token3, 2896),
     (aux_sym_sign_int_type_name_token4, 2896), (aux_sym_unsign_int_type_name_token1, 2896),
     (aux_sym_unsign_int_type_name_token2, 2896), (aux_sym_unsign_int_type_name_token3, 2896),
     (aux_sym_unsign_int_type_name_token4, 2896), (aux_sym_real_type_name_token1, 2896),
     (aux_sym_real_type_name_token2, 2896), (aux_sym_string_name_token1, 2896),
     (aux_sym_char_name_token1, 2896), (aux_sym_multibits_type_name_token1, 2896),
     (aux_sym_multibits_type_name_token2, 2896), (aux_sym_multibits_type_name_token3, 2896),
     (aux_sym_multibits_type_name_token4, 2896), (anon_sym_SEMI, 2898), (anon_sym_PERCENT, 2898),
     (anon_sym_STAR, 2896), (aux_sym_ref_value_token1, 2896), (aux_sym_ref_addr_token1, 2896),
     (anon_sym_DOT_DOT_DOT, 2898), (aux_sym_method_decl_token1, 2896), (anon_sym_SLASH, 2896),
     (anon_sym_STAR_STAR, 2898), (anon_sym_AMP, 2898), (anon_sym_LT_GT, 2898), (anon_sym_LT, 2896),
     (anon_sym_GT, 2896), (anon_sym_LT_EQ, 2898), (anon_sym_GT_EQ, 2898),
     (aux_sym_or_operator_token1, 2896), (aux_sym_xor_operator_token1, 2896),
     (aux_sym_and_operator_token1, 2896), (aux_sym_mult_token1, 2896), (aux_sym_unary_token1, 2896),
     (aux_sym__stmt_token1, 2896), (aux_sym__stmt_token2, 2896), (aux_sym__stmt_token3, 2896),
     (aux_sym_if_stmt_token1, 2896), (aux_sym_if_stmt_token3, 2896),
     (aux_sym_case_stmt_token1, 2896), (aux_sym_case_stmt_token2, 2896),
     (aux_sym_for_stmt_token1, 2896), (aux_sym_while_stmt_token1, 2896),
     (aux_sym_repeat_stmt_token1, 2896), (aux_sym_raise_stmt_token1, 2896),
     (aux_sym_try_stmt_token1, 2896), (aux_sym_try_stmt_token2, 2896),
     (aux_sym_catch_clause_token1, 2896), (aux_sym_finally_clause_token1, 2896),
     (sym_c_style_comment, 3), (sym_pascal_style_comment, 3), (sym_pragma, 3),
     (sym__minus_before_base, 2898), (sym__plus_before_base, 2898)]"

lemma ts_parse_row_1152_scan: "row_scan tokens_2_1 0 ts_parse_row_1152 = Some (Suc (Suc (Suc (Suc (Suc (Suc 0))))))"
  unfolding ts_parse_row_1152_def by simp

text \<open>Lines 182732 to 182822.\<close>

definition ts_parse_row_1153 :: parse_row where
  "ts_parse_row_1153 =
    [(sym_identifier, 2900), (anon_sym_EQ, 2902),
     (aux_sym_ERR_unexpected_this_in_path_token1, 2900),
     (aux_sym_ERR_unexpected_super_in_path_token1, 2900), (sym_line_comment, 3),
     (anon_sym_LBRACE, 2900), (anon_sym_LPAREN, 2902), (aux_sym_test_pragma_token1, 2902),
     (aux_sym_once_pragma_token1, 2902), (aux_sym_must_call_pragma_token1, 2902),
     (aux_sym_export_pragma_token1, 2902), (sym_unsigned_int, 2900),
     (sym__explicit_signed_int, 2900), (sym_binary_int, 2902), (sym_octal_int, 2902),
     (sym_hex_int, 2902), (sym__explicit_signed_real, 2902), (sym_real_value, 2902),
     (aux_sym_bool_literal_with_string_token1, 2902),
     (aux_sym_bool_literal_with_string_token2, 2900),
     (aux_sym_bool_literal_with_string_token3, 2900), (sym_s_byte_char_str, 2902),
     (sym_d_byte_char_str, 2902), (aux_sym_time_token1, 2902), (anon_sym_PLUS, 2900),
     (anon_sym_DASH, 2900), (aux_sym_ltime_token1, 2902), (aux_sym_tod_token1, 2902),
     (aux_sym_ltod_token1, 2902), (aux_sym_short_date_token1, 2902),
     (aux_sym_long_date_token1, 2902), (aux_sym_short_date_and_time_token1, 2902),
     (aux_sym_long_date_and_time_token1, 2902), (aux_sym_sign_int_type_name_token1, 2900),
     (aux_sym_sign_int_type_name_token2, 2900), (aux_sym_sign_int_type_name_token3, 2900),
     (aux_sym_sign_int_type_name_token4, 2900), (aux_sym_unsign_int_type_name_token1, 2900),
     (aux_sym_unsign_int_type_name_token2, 2900), (aux_sym_unsign_int_type_name_token3, 2900),
     (aux_sym_unsign_int_type_name_token4, 2900), (aux_sym_real_type_name_token1, 2900),
     (aux_sym_real_type_name_token2, 2900), (aux_sym_string_name_token1, 2900),
     (aux_sym_char_name_token1, 2900), (aux_sym_multibits_type_name_token1, 2900),
     (aux_sym_multibits_type_name_token2, 2900), (aux_sym_multibits_type_name_token3, 2900),
     (aux_sym_multibits_type_name_token4, 2900), (anon_sym_SEMI, 2902), (anon_sym_PERCENT, 2902),
     (anon_sym_STAR, 2900), (aux_sym_ref_value_token1, 2900), (aux_sym_ref_addr_token1, 2900),
     (anon_sym_DOT_DOT_DOT, 2902), (aux_sym_method_decl_token1, 2900), (anon_sym_SLASH, 2900),
     (anon_sym_STAR_STAR, 2902), (anon_sym_AMP, 2902), (anon_sym_LT_GT, 2902), (anon_sym_LT, 2900),
     (anon_sym_GT, 2900), (anon_sym_LT_EQ, 2902), (anon_sym_GT_EQ, 2902),
     (aux_sym_or_operator_token1, 2900), (aux_sym_xor_operator_token1, 2900),
     (aux_sym_and_operator_token1, 2900), (aux_sym_mult_token1, 2900), (aux_sym_unary_token1, 2900),
     (aux_sym__stmt_token1, 2900), (aux_sym__stmt_token2, 2900), (aux_sym__stmt_token3, 2900),
     (aux_sym_if_stmt_token1, 2900), (aux_sym_if_stmt_token3, 2900),
     (aux_sym_case_stmt_token1, 2900), (aux_sym_case_stmt_token2, 2900),
     (aux_sym_for_stmt_token1, 2900), (aux_sym_while_stmt_token1, 2900),
     (aux_sym_repeat_stmt_token1, 2900), (aux_sym_raise_stmt_token1, 2900),
     (aux_sym_try_stmt_token1, 2900), (aux_sym_try_stmt_token2, 2900),
     (aux_sym_catch_clause_token1, 2900), (aux_sym_finally_clause_token1, 2900),
     (sym_c_style_comment, 3), (sym_pascal_style_comment, 3), (sym_pragma, 3),
     (sym__minus_before_base, 2902), (sym__plus_before_base, 2902)]"

lemma ts_parse_row_1153_scan: "row_scan tokens_2_1 0 ts_parse_row_1153 = Some (Suc (Suc (Suc (Suc (Suc (Suc 0))))))"
  unfolding ts_parse_row_1153_def by simp

text \<open>Lines 182823 to 182913.\<close>

definition ts_parse_row_1154 :: parse_row where
  "ts_parse_row_1154 =
    [(sym_identifier, 2904), (anon_sym_EQ, 2906),
     (aux_sym_ERR_unexpected_this_in_path_token1, 2904),
     (aux_sym_ERR_unexpected_super_in_path_token1, 2904), (sym_line_comment, 3),
     (anon_sym_LBRACE, 2904), (anon_sym_LPAREN, 2906), (aux_sym_test_pragma_token1, 2906),
     (aux_sym_once_pragma_token1, 2906), (aux_sym_must_call_pragma_token1, 2906),
     (aux_sym_export_pragma_token1, 2906), (sym_unsigned_int, 2904),
     (sym__explicit_signed_int, 2904), (sym_binary_int, 2906), (sym_octal_int, 2906),
     (sym_hex_int, 2906), (sym__explicit_signed_real, 2906), (sym_real_value, 2906),
     (aux_sym_bool_literal_with_string_token1, 2906),
     (aux_sym_bool_literal_with_string_token2, 2904),
     (aux_sym_bool_literal_with_string_token3, 2904), (sym_s_byte_char_str, 2906),
     (sym_d_byte_char_str, 2906), (aux_sym_time_token1, 2906), (anon_sym_PLUS, 2904),
     (anon_sym_DASH, 2904), (aux_sym_ltime_token1, 2906), (aux_sym_tod_token1, 2906),
     (aux_sym_ltod_token1, 2906), (aux_sym_short_date_token1, 2906),
     (aux_sym_long_date_token1, 2906), (aux_sym_short_date_and_time_token1, 2906),
     (aux_sym_long_date_and_time_token1, 2906), (aux_sym_sign_int_type_name_token1, 2904),
     (aux_sym_sign_int_type_name_token2, 2904), (aux_sym_sign_int_type_name_token3, 2904),
     (aux_sym_sign_int_type_name_token4, 2904), (aux_sym_unsign_int_type_name_token1, 2904),
     (aux_sym_unsign_int_type_name_token2, 2904), (aux_sym_unsign_int_type_name_token3, 2904),
     (aux_sym_unsign_int_type_name_token4, 2904), (aux_sym_real_type_name_token1, 2904),
     (aux_sym_real_type_name_token2, 2904), (aux_sym_string_name_token1, 2904),
     (aux_sym_char_name_token1, 2904), (aux_sym_multibits_type_name_token1, 2904),
     (aux_sym_multibits_type_name_token2, 2904), (aux_sym_multibits_type_name_token3, 2904),
     (aux_sym_multibits_type_name_token4, 2904), (anon_sym_SEMI, 2906), (anon_sym_PERCENT, 2906),
     (anon_sym_STAR, 2904), (aux_sym_ref_value_token1, 2904), (aux_sym_ref_addr_token1, 2904),
     (anon_sym_DOT_DOT_DOT, 2906), (aux_sym_method_decl_token1, 2904), (anon_sym_SLASH, 2904),
     (anon_sym_STAR_STAR, 2906), (anon_sym_AMP, 2906), (anon_sym_LT_GT, 2906), (anon_sym_LT, 2904),
     (anon_sym_GT, 2904), (anon_sym_LT_EQ, 2906), (anon_sym_GT_EQ, 2906),
     (aux_sym_or_operator_token1, 2904), (aux_sym_xor_operator_token1, 2904),
     (aux_sym_and_operator_token1, 2904), (aux_sym_mult_token1, 2904), (aux_sym_unary_token1, 2904),
     (aux_sym__stmt_token1, 2904), (aux_sym__stmt_token2, 2904), (aux_sym__stmt_token3, 2904),
     (aux_sym_if_stmt_token1, 2904), (aux_sym_if_stmt_token3, 2904),
     (aux_sym_case_stmt_token1, 2904), (aux_sym_case_stmt_token2, 2904),
     (aux_sym_for_stmt_token1, 2904), (aux_sym_while_stmt_token1, 2904),
     (aux_sym_repeat_stmt_token1, 2904), (aux_sym_raise_stmt_token1, 2904),
     (aux_sym_try_stmt_token1, 2904), (aux_sym_try_stmt_token2, 2904),
     (aux_sym_catch_clause_token1, 2904), (aux_sym_finally_clause_token1, 2904),
     (sym_c_style_comment, 3), (sym_pascal_style_comment, 3), (sym_pragma, 3),
     (sym__minus_before_base, 2906), (sym__plus_before_base, 2906)]"

lemma ts_parse_row_1154_scan: "row_scan tokens_2_1 0 ts_parse_row_1154 = Some (Suc (Suc (Suc (Suc (Suc (Suc 0))))))"
  unfolding ts_parse_row_1154_def by simp

text \<open>Lines 182914 to 183004.\<close>

definition ts_parse_row_1155 :: parse_row where
  "ts_parse_row_1155 =
    [(sym_identifier, 2908), (anon_sym_EQ, 2910),
     (aux_sym_ERR_unexpected_this_in_path_token1, 2908),
     (aux_sym_ERR_unexpected_super_in_path_token1, 2908), (sym_line_comment, 3),
     (anon_sym_LBRACE, 2908), (anon_sym_LPAREN, 2910), (aux_sym_test_pragma_token1, 2910),
     (aux_sym_once_pragma_token1, 2910), (aux_sym_must_call_pragma_token1, 2910),
     (aux_sym_export_pragma_token1, 2910), (sym_unsigned_int, 2908),
     (sym__explicit_signed_int, 2908), (sym_binary_int, 2910), (sym_octal_int, 2910),
     (sym_hex_int, 2910), (sym__explicit_signed_real, 2910), (sym_real_value, 2910),
     (aux_sym_bool_literal_with_string_token1, 2910),
     (aux_sym_bool_literal_with_string_token2, 2908),
     (aux_sym_bool_literal_with_string_token3, 2908), (sym_s_byte_char_str, 2910),
     (sym_d_byte_char_str, 2910), (aux_sym_time_token1, 2910), (anon_sym_PLUS, 2908),
     (anon_sym_DASH, 2908), (aux_sym_ltime_token1, 2910), (aux_sym_tod_token1, 2910),
     (aux_sym_ltod_token1, 2910), (aux_sym_short_date_token1, 2910),
     (aux_sym_long_date_token1, 2910), (aux_sym_short_date_and_time_token1, 2910),
     (aux_sym_long_date_and_time_token1, 2910), (aux_sym_sign_int_type_name_token1, 2908),
     (aux_sym_sign_int_type_name_token2, 2908), (aux_sym_sign_int_type_name_token3, 2908),
     (aux_sym_sign_int_type_name_token4, 2908), (aux_sym_unsign_int_type_name_token1, 2908),
     (aux_sym_unsign_int_type_name_token2, 2908), (aux_sym_unsign_int_type_name_token3, 2908),
     (aux_sym_unsign_int_type_name_token4, 2908), (aux_sym_real_type_name_token1, 2908),
     (aux_sym_real_type_name_token2, 2908), (aux_sym_string_name_token1, 2908),
     (aux_sym_char_name_token1, 2908), (aux_sym_multibits_type_name_token1, 2908),
     (aux_sym_multibits_type_name_token2, 2908), (aux_sym_multibits_type_name_token3, 2908),
     (aux_sym_multibits_type_name_token4, 2908), (anon_sym_SEMI, 2910), (anon_sym_PERCENT, 2910),
     (anon_sym_STAR, 2908), (aux_sym_ref_value_token1, 2908), (aux_sym_ref_addr_token1, 2908),
     (anon_sym_DOT_DOT_DOT, 2910), (aux_sym_method_decl_token1, 2908), (anon_sym_SLASH, 2908),
     (anon_sym_STAR_STAR, 2910), (anon_sym_AMP, 2910), (anon_sym_LT_GT, 2910), (anon_sym_LT, 2908),
     (anon_sym_GT, 2908), (anon_sym_LT_EQ, 2910), (anon_sym_GT_EQ, 2910),
     (aux_sym_or_operator_token1, 2908), (aux_sym_xor_operator_token1, 2908),
     (aux_sym_and_operator_token1, 2908), (aux_sym_mult_token1, 2908), (aux_sym_unary_token1, 2908),
     (aux_sym__stmt_token1, 2908), (aux_sym__stmt_token2, 2908), (aux_sym__stmt_token3, 2908),
     (aux_sym_if_stmt_token1, 2908), (aux_sym_if_stmt_token3, 2908),
     (aux_sym_case_stmt_token1, 2908), (aux_sym_case_stmt_token2, 2908),
     (aux_sym_for_stmt_token1, 2908), (aux_sym_while_stmt_token1, 2908),
     (aux_sym_repeat_stmt_token1, 2908), (aux_sym_raise_stmt_token1, 2908),
     (aux_sym_try_stmt_token1, 2908), (aux_sym_try_stmt_token2, 2908),
     (aux_sym_catch_clause_token1, 2908), (aux_sym_finally_clause_token1, 2908),
     (sym_c_style_comment, 3), (sym_pascal_style_comment, 3), (sym_pragma, 3),
     (sym__minus_before_base, 2910), (sym__plus_before_base, 2910)]"

lemma ts_parse_row_1155_scan: "row_scan tokens_2_1 0 ts_parse_row_1155 = Some (Suc (Suc (Suc (Suc (Suc (Suc 0))))))"
  unfolding ts_parse_row_1155_def by simp

text \<open>Lines 183005 to 183095.\<close>

definition ts_parse_row_1156 :: parse_row where
  "ts_parse_row_1156 =
    [(sym_identifier, 2912), (anon_sym_EQ, 2914),
     (aux_sym_ERR_unexpected_this_in_path_token1, 2912),
     (aux_sym_ERR_unexpected_super_in_path_token1, 2912), (sym_line_comment, 3),
     (anon_sym_LBRACE, 2912), (anon_sym_LPAREN, 2914), (aux_sym_test_pragma_token1, 2914),
     (aux_sym_once_pragma_token1, 2914), (aux_sym_must_call_pragma_token1, 2914),
     (aux_sym_export_pragma_token1, 2914), (sym_unsigned_int, 2912),
     (sym__explicit_signed_int, 2912), (sym_binary_int, 2914), (sym_octal_int, 2914),
     (sym_hex_int, 2914), (sym__explicit_signed_real, 2914), (sym_real_value, 2914),
     (aux_sym_bool_literal_with_string_token1, 2914),
     (aux_sym_bool_literal_with_string_token2, 2912),
     (aux_sym_bool_literal_with_string_token3, 2912), (sym_s_byte_char_str, 2914),
     (sym_d_byte_char_str, 2914), (aux_sym_time_token1, 2914), (anon_sym_PLUS, 2912),
     (anon_sym_DASH, 2912), (aux_sym_ltime_token1, 2914), (aux_sym_tod_token1, 2914),
     (aux_sym_ltod_token1, 2914), (aux_sym_short_date_token1, 2914),
     (aux_sym_long_date_token1, 2914), (aux_sym_short_date_and_time_token1, 2914),
     (aux_sym_long_date_and_time_token1, 2914), (aux_sym_sign_int_type_name_token1, 2912),
     (aux_sym_sign_int_type_name_token2, 2912), (aux_sym_sign_int_type_name_token3, 2912),
     (aux_sym_sign_int_type_name_token4, 2912), (aux_sym_unsign_int_type_name_token1, 2912),
     (aux_sym_unsign_int_type_name_token2, 2912), (aux_sym_unsign_int_type_name_token3, 2912),
     (aux_sym_unsign_int_type_name_token4, 2912), (aux_sym_real_type_name_token1, 2912),
     (aux_sym_real_type_name_token2, 2912), (aux_sym_string_name_token1, 2912),
     (aux_sym_char_name_token1, 2912), (aux_sym_multibits_type_name_token1, 2912),
     (aux_sym_multibits_type_name_token2, 2912), (aux_sym_multibits_type_name_token3, 2912),
     (aux_sym_multibits_type_name_token4, 2912), (anon_sym_SEMI, 2914), (anon_sym_PERCENT, 2914),
     (anon_sym_STAR, 2912), (aux_sym_ref_value_token1, 2912), (aux_sym_ref_addr_token1, 2912),
     (anon_sym_DOT_DOT_DOT, 2914), (aux_sym_method_decl_token1, 2912), (anon_sym_SLASH, 2912),
     (anon_sym_STAR_STAR, 2914), (anon_sym_AMP, 2914), (anon_sym_LT_GT, 2914), (anon_sym_LT, 2912),
     (anon_sym_GT, 2912), (anon_sym_LT_EQ, 2914), (anon_sym_GT_EQ, 2914),
     (aux_sym_or_operator_token1, 2912), (aux_sym_xor_operator_token1, 2912),
     (aux_sym_and_operator_token1, 2912), (aux_sym_mult_token1, 2912), (aux_sym_unary_token1, 2912),
     (aux_sym__stmt_token1, 2912), (aux_sym__stmt_token2, 2912), (aux_sym__stmt_token3, 2912),
     (aux_sym_if_stmt_token1, 2912), (aux_sym_if_stmt_token3, 2912),
     (aux_sym_case_stmt_token1, 2912), (aux_sym_case_stmt_token2, 2912),
     (aux_sym_for_stmt_token1, 2912), (aux_sym_while_stmt_token1, 2912),
     (aux_sym_repeat_stmt_token1, 2912), (aux_sym_raise_stmt_token1, 2912),
     (aux_sym_try_stmt_token1, 2912), (aux_sym_try_stmt_token2, 2912),
     (aux_sym_catch_clause_token1, 2912), (aux_sym_finally_clause_token1, 2912),
     (sym_c_style_comment, 3), (sym_pascal_style_comment, 3), (sym_pragma, 3),
     (sym__minus_before_base, 2914), (sym__plus_before_base, 2914)]"

lemma ts_parse_row_1156_scan: "row_scan tokens_2_1 0 ts_parse_row_1156 = Some (Suc (Suc (Suc (Suc (Suc (Suc 0))))))"
  unfolding ts_parse_row_1156_def by simp

text \<open>Lines 183096 to 183186.\<close>

definition ts_parse_row_1157 :: parse_row where
  "ts_parse_row_1157 =
    [(sym_identifier, 2916), (anon_sym_EQ, 2918),
     (aux_sym_ERR_unexpected_this_in_path_token1, 2916),
     (aux_sym_ERR_unexpected_super_in_path_token1, 2916), (sym_line_comment, 3),
     (anon_sym_LBRACE, 2916), (anon_sym_LPAREN, 2918), (aux_sym_test_pragma_token1, 2918),
     (aux_sym_once_pragma_token1, 2918), (aux_sym_must_call_pragma_token1, 2918),
     (aux_sym_export_pragma_token1, 2918), (sym_unsigned_int, 2916),
     (sym__explicit_signed_int, 2916), (sym_binary_int, 2918), (sym_octal_int, 2918),
     (sym_hex_int, 2918), (sym__explicit_signed_real, 2918), (sym_real_value, 2918),
     (aux_sym_bool_literal_with_string_token1, 2918),
     (aux_sym_bool_literal_with_string_token2, 2916),
     (aux_sym_bool_literal_with_string_token3, 2916), (sym_s_byte_char_str, 2918),
     (sym_d_byte_char_str, 2918), (aux_sym_time_token1, 2918), (anon_sym_PLUS, 2916),
     (anon_sym_DASH, 2916), (aux_sym_ltime_token1, 2918), (aux_sym_tod_token1, 2918),
     (aux_sym_ltod_token1, 2918), (aux_sym_short_date_token1, 2918),
     (aux_sym_long_date_token1, 2918), (aux_sym_short_date_and_time_token1, 2918),
     (aux_sym_long_date_and_time_token1, 2918), (aux_sym_sign_int_type_name_token1, 2916),
     (aux_sym_sign_int_type_name_token2, 2916), (aux_sym_sign_int_type_name_token3, 2916),
     (aux_sym_sign_int_type_name_token4, 2916), (aux_sym_unsign_int_type_name_token1, 2916),
     (aux_sym_unsign_int_type_name_token2, 2916), (aux_sym_unsign_int_type_name_token3, 2916),
     (aux_sym_unsign_int_type_name_token4, 2916), (aux_sym_real_type_name_token1, 2916),
     (aux_sym_real_type_name_token2, 2916), (aux_sym_string_name_token1, 2916),
     (aux_sym_char_name_token1, 2916), (aux_sym_multibits_type_name_token1, 2916),
     (aux_sym_multibits_type_name_token2, 2916), (aux_sym_multibits_type_name_token3, 2916),
     (aux_sym_multibits_type_name_token4, 2916), (anon_sym_SEMI, 2918), (anon_sym_PERCENT, 2918),
     (anon_sym_STAR, 2916), (aux_sym_ref_value_token1, 2916), (aux_sym_ref_addr_token1, 2916),
     (anon_sym_DOT_DOT_DOT, 2918), (aux_sym_method_decl_token1, 2916), (anon_sym_SLASH, 2916),
     (anon_sym_STAR_STAR, 2918), (anon_sym_AMP, 2918), (anon_sym_LT_GT, 2918), (anon_sym_LT, 2916),
     (anon_sym_GT, 2916), (anon_sym_LT_EQ, 2918), (anon_sym_GT_EQ, 2918),
     (aux_sym_or_operator_token1, 2916), (aux_sym_xor_operator_token1, 2916),
     (aux_sym_and_operator_token1, 2916), (aux_sym_mult_token1, 2916), (aux_sym_unary_token1, 2916),
     (aux_sym__stmt_token1, 2916), (aux_sym__stmt_token2, 2916), (aux_sym__stmt_token3, 2916),
     (aux_sym_if_stmt_token1, 2916), (aux_sym_if_stmt_token3, 2916),
     (aux_sym_case_stmt_token1, 2916), (aux_sym_case_stmt_token2, 2916),
     (aux_sym_for_stmt_token1, 2916), (aux_sym_while_stmt_token1, 2916),
     (aux_sym_repeat_stmt_token1, 2916), (aux_sym_raise_stmt_token1, 2916),
     (aux_sym_try_stmt_token1, 2916), (aux_sym_try_stmt_token2, 2916),
     (aux_sym_catch_clause_token1, 2916), (aux_sym_finally_clause_token1, 2916),
     (sym_c_style_comment, 3), (sym_pascal_style_comment, 3), (sym_pragma, 3),
     (sym__minus_before_base, 2918), (sym__plus_before_base, 2918)]"

lemma ts_parse_row_1157_scan: "row_scan tokens_2_1 0 ts_parse_row_1157 = Some (Suc (Suc (Suc (Suc (Suc (Suc 0))))))"
  unfolding ts_parse_row_1157_def by simp

text \<open>Lines 183187 to 183277.\<close>

definition ts_parse_row_1158 :: parse_row where
  "ts_parse_row_1158 =
    [(sym_identifier, 2920), (anon_sym_EQ, 2922),
     (aux_sym_ERR_unexpected_this_in_path_token1, 2920),
     (aux_sym_ERR_unexpected_super_in_path_token1, 2920), (sym_line_comment, 3),
     (anon_sym_LBRACE, 2920), (anon_sym_LPAREN, 2922), (aux_sym_test_pragma_token1, 2922),
     (aux_sym_once_pragma_token1, 2922), (aux_sym_must_call_pragma_token1, 2922),
     (aux_sym_export_pragma_token1, 2922), (sym_unsigned_int, 2920),
     (sym__explicit_signed_int, 2920), (sym_binary_int, 2922), (sym_octal_int, 2922),
     (sym_hex_int, 2922), (sym__explicit_signed_real, 2922), (sym_real_value, 2922),
     (aux_sym_bool_literal_with_string_token1, 2922),
     (aux_sym_bool_literal_with_string_token2, 2920),
     (aux_sym_bool_literal_with_string_token3, 2920), (sym_s_byte_char_str, 2922),
     (sym_d_byte_char_str, 2922), (aux_sym_time_token1, 2922), (anon_sym_PLUS, 2920),
     (anon_sym_DASH, 2920), (aux_sym_ltime_token1, 2922), (aux_sym_tod_token1, 2922),
     (aux_sym_ltod_token1, 2922), (aux_sym_short_date_token1, 2922),
     (aux_sym_long_date_token1, 2922), (aux_sym_short_date_and_time_token1, 2922),
     (aux_sym_long_date_and_time_token1, 2922), (aux_sym_sign_int_type_name_token1, 2920),
     (aux_sym_sign_int_type_name_token2, 2920), (aux_sym_sign_int_type_name_token3, 2920),
     (aux_sym_sign_int_type_name_token4, 2920), (aux_sym_unsign_int_type_name_token1, 2920),
     (aux_sym_unsign_int_type_name_token2, 2920), (aux_sym_unsign_int_type_name_token3, 2920),
     (aux_sym_unsign_int_type_name_token4, 2920), (aux_sym_real_type_name_token1, 2920),
     (aux_sym_real_type_name_token2, 2920), (aux_sym_string_name_token1, 2920),
     (aux_sym_char_name_token1, 2920), (aux_sym_multibits_type_name_token1, 2920),
     (aux_sym_multibits_type_name_token2, 2920), (aux_sym_multibits_type_name_token3, 2920),
     (aux_sym_multibits_type_name_token4, 2920), (anon_sym_SEMI, 2922), (anon_sym_PERCENT, 2922),
     (anon_sym_STAR, 2920), (aux_sym_ref_value_token1, 2920), (aux_sym_ref_addr_token1, 2920),
     (anon_sym_DOT_DOT_DOT, 2922), (aux_sym_method_decl_token1, 2920), (anon_sym_SLASH, 2920),
     (anon_sym_STAR_STAR, 2922), (anon_sym_AMP, 2922), (anon_sym_LT_GT, 2922), (anon_sym_LT, 2920),
     (anon_sym_GT, 2920), (anon_sym_LT_EQ, 2922), (anon_sym_GT_EQ, 2922),
     (aux_sym_or_operator_token1, 2920), (aux_sym_xor_operator_token1, 2920),
     (aux_sym_and_operator_token1, 2920), (aux_sym_mult_token1, 2920), (aux_sym_unary_token1, 2920),
     (aux_sym__stmt_token1, 2920), (aux_sym__stmt_token2, 2920), (aux_sym__stmt_token3, 2920),
     (aux_sym_if_stmt_token1, 2920), (aux_sym_if_stmt_token3, 2920),
     (aux_sym_case_stmt_token1, 2920), (aux_sym_case_stmt_token2, 2920),
     (aux_sym_for_stmt_token1, 2920), (aux_sym_while_stmt_token1, 2920),
     (aux_sym_repeat_stmt_token1, 2920), (aux_sym_raise_stmt_token1, 2920),
     (aux_sym_try_stmt_token1, 2920), (aux_sym_try_stmt_token2, 2920),
     (aux_sym_catch_clause_token1, 2920), (aux_sym_finally_clause_token1, 2920),
     (sym_c_style_comment, 3), (sym_pascal_style_comment, 3), (sym_pragma, 3),
     (sym__minus_before_base, 2922), (sym__plus_before_base, 2922)]"

lemma ts_parse_row_1158_scan: "row_scan tokens_2_1 0 ts_parse_row_1158 = Some (Suc (Suc (Suc (Suc (Suc (Suc 0))))))"
  unfolding ts_parse_row_1158_def by simp

text \<open>Lines 183278 to 183368.\<close>

definition ts_parse_row_1159 :: parse_row where
  "ts_parse_row_1159 =
    [(sym_identifier, 2924), (anon_sym_EQ, 2926),
     (aux_sym_ERR_unexpected_this_in_path_token1, 2924),
     (aux_sym_ERR_unexpected_super_in_path_token1, 2924), (sym_line_comment, 3),
     (anon_sym_LBRACE, 2924), (anon_sym_LPAREN, 2926), (aux_sym_test_pragma_token1, 2926),
     (aux_sym_once_pragma_token1, 2926), (aux_sym_must_call_pragma_token1, 2926),
     (aux_sym_export_pragma_token1, 2926), (sym_unsigned_int, 2924),
     (sym__explicit_signed_int, 2924), (sym_binary_int, 2926), (sym_octal_int, 2926),
     (sym_hex_int, 2926), (sym__explicit_signed_real, 2926), (sym_real_value, 2926),
     (aux_sym_bool_literal_with_string_token1, 2926),
     (aux_sym_bool_literal_with_string_token2, 2924),
     (aux_sym_bool_literal_with_string_token3, 2924), (sym_s_byte_char_str, 2926),
     (sym_d_byte_char_str, 2926), (aux_sym_time_token1, 2926), (anon_sym_PLUS, 2924),
     (anon_sym_DASH, 2924), (aux_sym_ltime_token1, 2926), (aux_sym_tod_token1, 2926),
     (aux_sym_ltod_token1, 2926), (aux_sym_short_date_token1, 2926),
     (aux_sym_long_date_token1, 2926), (aux_sym_short_date_and_time_token1, 2926),
     (aux_sym_long_date_and_time_token1, 2926), (aux_sym_sign_int_type_name_token1, 2924),
     (aux_sym_sign_int_type_name_token2, 2924), (aux_sym_sign_int_type_name_token3, 2924),
     (aux_sym_sign_int_type_name_token4, 2924), (aux_sym_unsign_int_type_name_token1, 2924),
     (aux_sym_unsign_int_type_name_token2, 2924), (aux_sym_unsign_int_type_name_token3, 2924),
     (aux_sym_unsign_int_type_name_token4, 2924), (aux_sym_real_type_name_token1, 2924),
     (aux_sym_real_type_name_token2, 2924), (aux_sym_string_name_token1, 2924),
     (aux_sym_char_name_token1, 2924), (aux_sym_multibits_type_name_token1, 2924),
     (aux_sym_multibits_type_name_token2, 2924), (aux_sym_multibits_type_name_token3, 2924),
     (aux_sym_multibits_type_name_token4, 2924), (anon_sym_SEMI, 2926), (anon_sym_PERCENT, 2926),
     (anon_sym_STAR, 2924), (aux_sym_ref_value_token1, 2924), (aux_sym_ref_addr_token1, 2924),
     (anon_sym_DOT_DOT_DOT, 2926), (aux_sym_method_decl_token1, 2924), (anon_sym_SLASH, 2924),
     (anon_sym_STAR_STAR, 2926), (anon_sym_AMP, 2926), (anon_sym_LT_GT, 2926), (anon_sym_LT, 2924),
     (anon_sym_GT, 2924), (anon_sym_LT_EQ, 2926), (anon_sym_GT_EQ, 2926),
     (aux_sym_or_operator_token1, 2924), (aux_sym_xor_operator_token1, 2924),
     (aux_sym_and_operator_token1, 2924), (aux_sym_mult_token1, 2924), (aux_sym_unary_token1, 2924),
     (aux_sym__stmt_token1, 2924), (aux_sym__stmt_token2, 2924), (aux_sym__stmt_token3, 2924),
     (aux_sym_if_stmt_token1, 2924), (aux_sym_if_stmt_token3, 2924),
     (aux_sym_case_stmt_token1, 2924), (aux_sym_case_stmt_token2, 2924),
     (aux_sym_for_stmt_token1, 2924), (aux_sym_while_stmt_token1, 2924),
     (aux_sym_repeat_stmt_token1, 2924), (aux_sym_raise_stmt_token1, 2924),
     (aux_sym_try_stmt_token1, 2924), (aux_sym_try_stmt_token2, 2924),
     (aux_sym_catch_clause_token1, 2924), (aux_sym_finally_clause_token1, 2924),
     (sym_c_style_comment, 3), (sym_pascal_style_comment, 3), (sym_pragma, 3),
     (sym__minus_before_base, 2926), (sym__plus_before_base, 2926)]"

lemma ts_parse_row_1159_scan: "row_scan tokens_2_1 0 ts_parse_row_1159 = Some (Suc (Suc (Suc (Suc (Suc (Suc 0))))))"
  unfolding ts_parse_row_1159_def by simp

text \<open>Lines 183369 to 183459.\<close>

definition ts_parse_row_1160 :: parse_row where
  "ts_parse_row_1160 =
    [(sym_identifier, 2928), (anon_sym_EQ, 2930),
     (aux_sym_ERR_unexpected_this_in_path_token1, 2928),
     (aux_sym_ERR_unexpected_super_in_path_token1, 2928), (sym_line_comment, 3),
     (anon_sym_LBRACE, 2928), (anon_sym_LPAREN, 2930), (aux_sym_test_pragma_token1, 2930),
     (aux_sym_once_pragma_token1, 2930), (aux_sym_must_call_pragma_token1, 2930),
     (aux_sym_export_pragma_token1, 2930), (sym_unsigned_int, 2928),
     (sym__explicit_signed_int, 2928), (sym_binary_int, 2930), (sym_octal_int, 2930),
     (sym_hex_int, 2930), (sym__explicit_signed_real, 2930), (sym_real_value, 2930),
     (aux_sym_bool_literal_with_string_token1, 2930),
     (aux_sym_bool_literal_with_string_token2, 2928),
     (aux_sym_bool_literal_with_string_token3, 2928), (sym_s_byte_char_str, 2930),
     (sym_d_byte_char_str, 2930), (aux_sym_time_token1, 2930), (anon_sym_PLUS, 2928),
     (anon_sym_DASH, 2928), (aux_sym_ltime_token1, 2930), (aux_sym_tod_token1, 2930),
     (aux_sym_ltod_token1, 2930), (aux_sym_short_date_token1, 2930),
     (aux_sym_long_date_token1, 2930), (aux_sym_short_date_and_time_token1, 2930),
     (aux_sym_long_date_and_time_token1, 2930), (aux_sym_sign_int_type_name_token1, 2928),
     (aux_sym_sign_int_type_name_token2, 2928), (aux_sym_sign_int_type_name_token3, 2928),
     (aux_sym_sign_int_type_name_token4, 2928), (aux_sym_unsign_int_type_name_token1, 2928),
     (aux_sym_unsign_int_type_name_token2, 2928), (aux_sym_unsign_int_type_name_token3, 2928),
     (aux_sym_unsign_int_type_name_token4, 2928), (aux_sym_real_type_name_token1, 2928),
     (aux_sym_real_type_name_token2, 2928), (aux_sym_string_name_token1, 2928),
     (aux_sym_char_name_token1, 2928), (aux_sym_multibits_type_name_token1, 2928),
     (aux_sym_multibits_type_name_token2, 2928), (aux_sym_multibits_type_name_token3, 2928),
     (aux_sym_multibits_type_name_token4, 2928), (anon_sym_SEMI, 2930), (anon_sym_PERCENT, 2930),
     (anon_sym_STAR, 2928), (aux_sym_ref_value_token1, 2928), (aux_sym_ref_addr_token1, 2928),
     (anon_sym_DOT_DOT_DOT, 2930), (aux_sym_method_decl_token1, 2928), (anon_sym_SLASH, 2928),
     (anon_sym_STAR_STAR, 2930), (anon_sym_AMP, 2930), (anon_sym_LT_GT, 2930), (anon_sym_LT, 2928),
     (anon_sym_GT, 2928), (anon_sym_LT_EQ, 2930), (anon_sym_GT_EQ, 2930),
     (aux_sym_or_operator_token1, 2928), (aux_sym_xor_operator_token1, 2928),
     (aux_sym_and_operator_token1, 2928), (aux_sym_mult_token1, 2928), (aux_sym_unary_token1, 2928),
     (aux_sym__stmt_token1, 2928), (aux_sym__stmt_token2, 2928), (aux_sym__stmt_token3, 2928),
     (aux_sym_if_stmt_token1, 2928), (aux_sym_if_stmt_token3, 2928),
     (aux_sym_case_stmt_token1, 2928), (aux_sym_case_stmt_token2, 2928),
     (aux_sym_for_stmt_token1, 2928), (aux_sym_while_stmt_token1, 2928),
     (aux_sym_repeat_stmt_token1, 2928), (aux_sym_raise_stmt_token1, 2928),
     (aux_sym_try_stmt_token1, 2928), (aux_sym_try_stmt_token2, 2928),
     (aux_sym_catch_clause_token1, 2928), (aux_sym_finally_clause_token1, 2928),
     (sym_c_style_comment, 3), (sym_pascal_style_comment, 3), (sym_pragma, 3),
     (sym__minus_before_base, 2930), (sym__plus_before_base, 2930)]"

lemma ts_parse_row_1160_scan: "row_scan tokens_2_1 0 ts_parse_row_1160 = Some (Suc (Suc (Suc (Suc (Suc (Suc 0))))))"
  unfolding ts_parse_row_1160_def by simp

text \<open>Lines 183460 to 183550.\<close>

definition ts_parse_row_1161 :: parse_row where
  "ts_parse_row_1161 =
    [(sym_identifier, 2932), (anon_sym_EQ, 2934),
     (aux_sym_ERR_unexpected_this_in_path_token1, 2932),
     (aux_sym_ERR_unexpected_super_in_path_token1, 2932), (sym_line_comment, 3),
     (anon_sym_LBRACE, 2932), (anon_sym_LPAREN, 2934), (aux_sym_test_pragma_token1, 2934),
     (aux_sym_once_pragma_token1, 2934), (aux_sym_must_call_pragma_token1, 2934),
     (aux_sym_export_pragma_token1, 2934), (sym_unsigned_int, 2932),
     (sym__explicit_signed_int, 2932), (sym_binary_int, 2934), (sym_octal_int, 2934),
     (sym_hex_int, 2934), (sym__explicit_signed_real, 2934), (sym_real_value, 2934),
     (aux_sym_bool_literal_with_string_token1, 2934),
     (aux_sym_bool_literal_with_string_token2, 2932),
     (aux_sym_bool_literal_with_string_token3, 2932), (sym_s_byte_char_str, 2934),
     (sym_d_byte_char_str, 2934), (aux_sym_time_token1, 2934), (anon_sym_PLUS, 2932),
     (anon_sym_DASH, 2932), (aux_sym_ltime_token1, 2934), (aux_sym_tod_token1, 2934),
     (aux_sym_ltod_token1, 2934), (aux_sym_short_date_token1, 2934),
     (aux_sym_long_date_token1, 2934), (aux_sym_short_date_and_time_token1, 2934),
     (aux_sym_long_date_and_time_token1, 2934), (aux_sym_sign_int_type_name_token1, 2932),
     (aux_sym_sign_int_type_name_token2, 2932), (aux_sym_sign_int_type_name_token3, 2932),
     (aux_sym_sign_int_type_name_token4, 2932), (aux_sym_unsign_int_type_name_token1, 2932),
     (aux_sym_unsign_int_type_name_token2, 2932), (aux_sym_unsign_int_type_name_token3, 2932),
     (aux_sym_unsign_int_type_name_token4, 2932), (aux_sym_real_type_name_token1, 2932),
     (aux_sym_real_type_name_token2, 2932), (aux_sym_string_name_token1, 2932),
     (aux_sym_char_name_token1, 2932), (aux_sym_multibits_type_name_token1, 2932),
     (aux_sym_multibits_type_name_token2, 2932), (aux_sym_multibits_type_name_token3, 2932),
     (aux_sym_multibits_type_name_token4, 2932), (anon_sym_SEMI, 2934), (anon_sym_PERCENT, 2934),
     (anon_sym_STAR, 2932), (aux_sym_ref_value_token1, 2932), (aux_sym_ref_addr_token1, 2932),
     (anon_sym_DOT_DOT_DOT, 2934), (aux_sym_method_decl_token1, 2932), (anon_sym_SLASH, 2932),
     (anon_sym_STAR_STAR, 2934), (anon_sym_AMP, 2934), (anon_sym_LT_GT, 2934), (anon_sym_LT, 2932),
     (anon_sym_GT, 2932), (anon_sym_LT_EQ, 2934), (anon_sym_GT_EQ, 2934),
     (aux_sym_or_operator_token1, 2932), (aux_sym_xor_operator_token1, 2932),
     (aux_sym_and_operator_token1, 2932), (aux_sym_mult_token1, 2932), (aux_sym_unary_token1, 2932),
     (aux_sym__stmt_token1, 2932), (aux_sym__stmt_token2, 2932), (aux_sym__stmt_token3, 2932),
     (aux_sym_if_stmt_token1, 2932), (aux_sym_if_stmt_token3, 2932),
     (aux_sym_case_stmt_token1, 2932), (aux_sym_case_stmt_token2, 2932),
     (aux_sym_for_stmt_token1, 2932), (aux_sym_while_stmt_token1, 2932),
     (aux_sym_repeat_stmt_token1, 2932), (aux_sym_raise_stmt_token1, 2932),
     (aux_sym_try_stmt_token1, 2932), (aux_sym_try_stmt_token2, 2932),
     (aux_sym_catch_clause_token1, 2932), (aux_sym_finally_clause_token1, 2932),
     (sym_c_style_comment, 3), (sym_pascal_style_comment, 3), (sym_pragma, 3),
     (sym__minus_before_base, 2934), (sym__plus_before_base, 2934)]"

lemma ts_parse_row_1161_scan: "row_scan tokens_2_1 0 ts_parse_row_1161 = Some (Suc (Suc (Suc (Suc (Suc (Suc 0))))))"
  unfolding ts_parse_row_1161_def by simp

text \<open>Lines 183551 to 183641.\<close>

definition ts_parse_row_1162 :: parse_row where
  "ts_parse_row_1162 =
    [(sym_identifier, 2936), (anon_sym_EQ, 2938),
     (aux_sym_ERR_unexpected_this_in_path_token1, 2936),
     (aux_sym_ERR_unexpected_super_in_path_token1, 2936), (sym_line_comment, 3),
     (anon_sym_LBRACE, 2936), (anon_sym_LPAREN, 2938), (aux_sym_test_pragma_token1, 2938),
     (aux_sym_once_pragma_token1, 2938), (aux_sym_must_call_pragma_token1, 2938),
     (aux_sym_export_pragma_token1, 2938), (sym_unsigned_int, 2936),
     (sym__explicit_signed_int, 2936), (sym_binary_int, 2938), (sym_octal_int, 2938),
     (sym_hex_int, 2938), (sym__explicit_signed_real, 2938), (sym_real_value, 2938),
     (aux_sym_bool_literal_with_string_token1, 2938),
     (aux_sym_bool_literal_with_string_token2, 2936),
     (aux_sym_bool_literal_with_string_token3, 2936), (sym_s_byte_char_str, 2938),
     (sym_d_byte_char_str, 2938), (aux_sym_time_token1, 2938), (anon_sym_PLUS, 2936),
     (anon_sym_DASH, 2936), (aux_sym_ltime_token1, 2938), (aux_sym_tod_token1, 2938),
     (aux_sym_ltod_token1, 2938), (aux_sym_short_date_token1, 2938),
     (aux_sym_long_date_token1, 2938), (aux_sym_short_date_and_time_token1, 2938),
     (aux_sym_long_date_and_time_token1, 2938), (aux_sym_sign_int_type_name_token1, 2936),
     (aux_sym_sign_int_type_name_token2, 2936), (aux_sym_sign_int_type_name_token3, 2936),
     (aux_sym_sign_int_type_name_token4, 2936), (aux_sym_unsign_int_type_name_token1, 2936),
     (aux_sym_unsign_int_type_name_token2, 2936), (aux_sym_unsign_int_type_name_token3, 2936),
     (aux_sym_unsign_int_type_name_token4, 2936), (aux_sym_real_type_name_token1, 2936),
     (aux_sym_real_type_name_token2, 2936), (aux_sym_string_name_token1, 2936),
     (aux_sym_char_name_token1, 2936), (aux_sym_multibits_type_name_token1, 2936),
     (aux_sym_multibits_type_name_token2, 2936), (aux_sym_multibits_type_name_token3, 2936),
     (aux_sym_multibits_type_name_token4, 2936), (anon_sym_SEMI, 2938), (anon_sym_PERCENT, 2938),
     (anon_sym_STAR, 2936), (aux_sym_ref_value_token1, 2936), (aux_sym_ref_addr_token1, 2936),
     (anon_sym_DOT_DOT_DOT, 2938), (aux_sym_method_decl_token1, 2936), (anon_sym_SLASH, 2936),
     (anon_sym_STAR_STAR, 2938), (anon_sym_AMP, 2938), (anon_sym_LT_GT, 2938), (anon_sym_LT, 2936),
     (anon_sym_GT, 2936), (anon_sym_LT_EQ, 2938), (anon_sym_GT_EQ, 2938),
     (aux_sym_or_operator_token1, 2936), (aux_sym_xor_operator_token1, 2936),
     (aux_sym_and_operator_token1, 2936), (aux_sym_mult_token1, 2936), (aux_sym_unary_token1, 2936),
     (aux_sym__stmt_token1, 2936), (aux_sym__stmt_token2, 2936), (aux_sym__stmt_token3, 2936),
     (aux_sym_if_stmt_token1, 2936), (aux_sym_if_stmt_token3, 2936),
     (aux_sym_case_stmt_token1, 2936), (aux_sym_case_stmt_token2, 2936),
     (aux_sym_for_stmt_token1, 2936), (aux_sym_while_stmt_token1, 2936),
     (aux_sym_repeat_stmt_token1, 2936), (aux_sym_raise_stmt_token1, 2936),
     (aux_sym_try_stmt_token1, 2936), (aux_sym_try_stmt_token2, 2936),
     (aux_sym_catch_clause_token1, 2936), (aux_sym_finally_clause_token1, 2936),
     (sym_c_style_comment, 3), (sym_pascal_style_comment, 3), (sym_pragma, 3),
     (sym__minus_before_base, 2938), (sym__plus_before_base, 2938)]"

lemma ts_parse_row_1162_scan: "row_scan tokens_2_1 0 ts_parse_row_1162 = Some (Suc (Suc (Suc (Suc (Suc (Suc 0))))))"
  unfolding ts_parse_row_1162_def by simp

text \<open>Lines 183642 to 183732.\<close>

definition ts_parse_row_1163 :: parse_row where
  "ts_parse_row_1163 =
    [(sym_identifier, 2940), (anon_sym_EQ, 2942),
     (aux_sym_ERR_unexpected_this_in_path_token1, 2940),
     (aux_sym_ERR_unexpected_super_in_path_token1, 2940), (sym_line_comment, 3),
     (anon_sym_LBRACE, 2940), (anon_sym_LPAREN, 2942), (aux_sym_test_pragma_token1, 2942),
     (aux_sym_once_pragma_token1, 2942), (aux_sym_must_call_pragma_token1, 2942),
     (aux_sym_export_pragma_token1, 2942), (sym_unsigned_int, 2940),
     (sym__explicit_signed_int, 2940), (sym_binary_int, 2942), (sym_octal_int, 2942),
     (sym_hex_int, 2942), (sym__explicit_signed_real, 2942), (sym_real_value, 2942),
     (aux_sym_bool_literal_with_string_token1, 2942),
     (aux_sym_bool_literal_with_string_token2, 2940),
     (aux_sym_bool_literal_with_string_token3, 2940), (sym_s_byte_char_str, 2942),
     (sym_d_byte_char_str, 2942), (aux_sym_time_token1, 2942), (anon_sym_PLUS, 2940),
     (anon_sym_DASH, 2940), (aux_sym_ltime_token1, 2942), (aux_sym_tod_token1, 2942),
     (aux_sym_ltod_token1, 2942), (aux_sym_short_date_token1, 2942),
     (aux_sym_long_date_token1, 2942), (aux_sym_short_date_and_time_token1, 2942),
     (aux_sym_long_date_and_time_token1, 2942), (aux_sym_sign_int_type_name_token1, 2940),
     (aux_sym_sign_int_type_name_token2, 2940), (aux_sym_sign_int_type_name_token3, 2940),
     (aux_sym_sign_int_type_name_token4, 2940), (aux_sym_unsign_int_type_name_token1, 2940),
     (aux_sym_unsign_int_type_name_token2, 2940), (aux_sym_unsign_int_type_name_token3, 2940),
     (aux_sym_unsign_int_type_name_token4, 2940), (aux_sym_real_type_name_token1, 2940),
     (aux_sym_real_type_name_token2, 2940), (aux_sym_string_name_token1, 2940),
     (aux_sym_char_name_token1, 2940), (aux_sym_multibits_type_name_token1, 2940),
     (aux_sym_multibits_type_name_token2, 2940), (aux_sym_multibits_type_name_token3, 2940),
     (aux_sym_multibits_type_name_token4, 2940), (anon_sym_SEMI, 2942), (anon_sym_PERCENT, 2942),
     (anon_sym_STAR, 2940), (aux_sym_ref_value_token1, 2940), (aux_sym_ref_addr_token1, 2940),
     (anon_sym_DOT_DOT_DOT, 2942), (aux_sym_method_decl_token1, 2940), (anon_sym_SLASH, 2940),
     (anon_sym_STAR_STAR, 2942), (anon_sym_AMP, 2942), (anon_sym_LT_GT, 2942), (anon_sym_LT, 2940),
     (anon_sym_GT, 2940), (anon_sym_LT_EQ, 2942), (anon_sym_GT_EQ, 2942),
     (aux_sym_or_operator_token1, 2940), (aux_sym_xor_operator_token1, 2940),
     (aux_sym_and_operator_token1, 2940), (aux_sym_mult_token1, 2940), (aux_sym_unary_token1, 2940),
     (aux_sym__stmt_token1, 2940), (aux_sym__stmt_token2, 2940), (aux_sym__stmt_token3, 2940),
     (aux_sym_if_stmt_token1, 2940), (aux_sym_if_stmt_token3, 2940),
     (aux_sym_case_stmt_token1, 2940), (aux_sym_case_stmt_token2, 2940),
     (aux_sym_for_stmt_token1, 2940), (aux_sym_while_stmt_token1, 2940),
     (aux_sym_repeat_stmt_token1, 2940), (aux_sym_raise_stmt_token1, 2940),
     (aux_sym_try_stmt_token1, 2940), (aux_sym_try_stmt_token2, 2940),
     (aux_sym_catch_clause_token1, 2940), (aux_sym_finally_clause_token1, 2940),
     (sym_c_style_comment, 3), (sym_pascal_style_comment, 3), (sym_pragma, 3),
     (sym__minus_before_base, 2942), (sym__plus_before_base, 2942)]"

lemma ts_parse_row_1163_scan: "row_scan tokens_2_1 0 ts_parse_row_1163 = Some (Suc (Suc (Suc (Suc (Suc (Suc 0))))))"
  unfolding ts_parse_row_1163_def by simp

text \<open>Lines 183733 to 183823.\<close>

definition ts_parse_row_1164 :: parse_row where
  "ts_parse_row_1164 =
    [(sym_identifier, 2944), (anon_sym_EQ, 2946),
     (aux_sym_ERR_unexpected_this_in_path_token1, 2944),
     (aux_sym_ERR_unexpected_super_in_path_token1, 2944), (sym_line_comment, 3),
     (anon_sym_LBRACE, 2944), (anon_sym_LPAREN, 2946), (aux_sym_test_pragma_token1, 2946),
     (aux_sym_once_pragma_token1, 2946), (aux_sym_must_call_pragma_token1, 2946),
     (aux_sym_export_pragma_token1, 2946), (sym_unsigned_int, 2944),
     (sym__explicit_signed_int, 2944), (sym_binary_int, 2946), (sym_octal_int, 2946),
     (sym_hex_int, 2946), (sym__explicit_signed_real, 2946), (sym_real_value, 2946),
     (aux_sym_bool_literal_with_string_token1, 2946),
     (aux_sym_bool_literal_with_string_token2, 2944),
     (aux_sym_bool_literal_with_string_token3, 2944), (sym_s_byte_char_str, 2946),
     (sym_d_byte_char_str, 2946), (aux_sym_time_token1, 2946), (anon_sym_PLUS, 2944),
     (anon_sym_DASH, 2944), (aux_sym_ltime_token1, 2946), (aux_sym_tod_token1, 2946),
     (aux_sym_ltod_token1, 2946), (aux_sym_short_date_token1, 2946),
     (aux_sym_long_date_token1, 2946), (aux_sym_short_date_and_time_token1, 2946),
     (aux_sym_long_date_and_time_token1, 2946), (aux_sym_sign_int_type_name_token1, 2944),
     (aux_sym_sign_int_type_name_token2, 2944), (aux_sym_sign_int_type_name_token3, 2944),
     (aux_sym_sign_int_type_name_token4, 2944), (aux_sym_unsign_int_type_name_token1, 2944),
     (aux_sym_unsign_int_type_name_token2, 2944), (aux_sym_unsign_int_type_name_token3, 2944),
     (aux_sym_unsign_int_type_name_token4, 2944), (aux_sym_real_type_name_token1, 2944),
     (aux_sym_real_type_name_token2, 2944), (aux_sym_string_name_token1, 2944),
     (aux_sym_char_name_token1, 2944), (aux_sym_multibits_type_name_token1, 2944),
     (aux_sym_multibits_type_name_token2, 2944), (aux_sym_multibits_type_name_token3, 2944),
     (aux_sym_multibits_type_name_token4, 2944), (anon_sym_SEMI, 2946), (anon_sym_PERCENT, 2946),
     (anon_sym_STAR, 2944), (aux_sym_ref_value_token1, 2944), (aux_sym_ref_addr_token1, 2944),
     (anon_sym_DOT_DOT_DOT, 2946), (aux_sym_method_decl_token1, 2944), (anon_sym_SLASH, 2944),
     (anon_sym_STAR_STAR, 2946), (anon_sym_AMP, 2946), (anon_sym_LT_GT, 2946), (anon_sym_LT, 2944),
     (anon_sym_GT, 2944), (anon_sym_LT_EQ, 2946), (anon_sym_GT_EQ, 2946),
     (aux_sym_or_operator_token1, 2944), (aux_sym_xor_operator_token1, 2944),
     (aux_sym_and_operator_token1, 2944), (aux_sym_mult_token1, 2944), (aux_sym_unary_token1, 2944),
     (aux_sym__stmt_token1, 2944), (aux_sym__stmt_token2, 2944), (aux_sym__stmt_token3, 2944),
     (aux_sym_if_stmt_token1, 2944), (aux_sym_if_stmt_token3, 2944),
     (aux_sym_case_stmt_token1, 2944), (aux_sym_case_stmt_token2, 2944),
     (aux_sym_for_stmt_token1, 2944), (aux_sym_while_stmt_token1, 2944),
     (aux_sym_repeat_stmt_token1, 2944), (aux_sym_raise_stmt_token1, 2944),
     (aux_sym_try_stmt_token1, 2944), (aux_sym_try_stmt_token2, 2944),
     (aux_sym_catch_clause_token1, 2944), (aux_sym_finally_clause_token1, 2944),
     (sym_c_style_comment, 3), (sym_pascal_style_comment, 3), (sym_pragma, 3),
     (sym__minus_before_base, 2946), (sym__plus_before_base, 2946)]"

lemma ts_parse_row_1164_scan: "row_scan tokens_2_1 0 ts_parse_row_1164 = Some (Suc (Suc (Suc (Suc (Suc (Suc 0))))))"
  unfolding ts_parse_row_1164_def by simp

text \<open>Lines 183824 to 183914.\<close>

definition ts_parse_row_1165 :: parse_row where
  "ts_parse_row_1165 =
    [(sym_identifier, 2948), (anon_sym_EQ, 2950),
     (aux_sym_ERR_unexpected_this_in_path_token1, 2948),
     (aux_sym_ERR_unexpected_super_in_path_token1, 2948), (sym_line_comment, 3),
     (anon_sym_LBRACE, 2948), (anon_sym_LPAREN, 2950), (aux_sym_test_pragma_token1, 2950),
     (aux_sym_once_pragma_token1, 2950), (aux_sym_must_call_pragma_token1, 2950),
     (aux_sym_export_pragma_token1, 2950), (sym_unsigned_int, 2948),
     (sym__explicit_signed_int, 2948), (sym_binary_int, 2950), (sym_octal_int, 2950),
     (sym_hex_int, 2950), (sym__explicit_signed_real, 2950), (sym_real_value, 2950),
     (aux_sym_bool_literal_with_string_token1, 2950),
     (aux_sym_bool_literal_with_string_token2, 2948),
     (aux_sym_bool_literal_with_string_token3, 2948), (sym_s_byte_char_str, 2950),
     (sym_d_byte_char_str, 2950), (aux_sym_time_token1, 2950), (anon_sym_PLUS, 2948),
     (anon_sym_DASH, 2948), (aux_sym_ltime_token1, 2950), (aux_sym_tod_token1, 2950),
     (aux_sym_ltod_token1, 2950), (aux_sym_short_date_token1, 2950),
     (aux_sym_long_date_token1, 2950), (aux_sym_short_date_and_time_token1, 2950),
     (aux_sym_long_date_and_time_token1, 2950), (aux_sym_sign_int_type_name_token1, 2948),
     (aux_sym_sign_int_type_name_token2, 2948), (aux_sym_sign_int_type_name_token3, 2948),
     (aux_sym_sign_int_type_name_token4, 2948), (aux_sym_unsign_int_type_name_token1, 2948),
     (aux_sym_unsign_int_type_name_token2, 2948), (aux_sym_unsign_int_type_name_token3, 2948),
     (aux_sym_unsign_int_type_name_token4, 2948), (aux_sym_real_type_name_token1, 2948),
     (aux_sym_real_type_name_token2, 2948), (aux_sym_string_name_token1, 2948),
     (aux_sym_char_name_token1, 2948), (aux_sym_multibits_type_name_token1, 2948),
     (aux_sym_multibits_type_name_token2, 2948), (aux_sym_multibits_type_name_token3, 2948),
     (aux_sym_multibits_type_name_token4, 2948), (anon_sym_SEMI, 2950), (anon_sym_PERCENT, 2950),
     (anon_sym_STAR, 2948), (aux_sym_ref_value_token1, 2948), (aux_sym_ref_addr_token1, 2948),
     (anon_sym_DOT_DOT_DOT, 2950), (aux_sym_method_decl_token1, 2948), (anon_sym_SLASH, 2948),
     (anon_sym_STAR_STAR, 2950), (anon_sym_AMP, 2950), (anon_sym_LT_GT, 2950), (anon_sym_LT, 2948),
     (anon_sym_GT, 2948), (anon_sym_LT_EQ, 2950), (anon_sym_GT_EQ, 2950),
     (aux_sym_or_operator_token1, 2948), (aux_sym_xor_operator_token1, 2948),
     (aux_sym_and_operator_token1, 2948), (aux_sym_mult_token1, 2948), (aux_sym_unary_token1, 2948),
     (aux_sym__stmt_token1, 2948), (aux_sym__stmt_token2, 2948), (aux_sym__stmt_token3, 2948),
     (aux_sym_if_stmt_token1, 2948), (aux_sym_if_stmt_token3, 2948),
     (aux_sym_case_stmt_token1, 2948), (aux_sym_case_stmt_token2, 2948),
     (aux_sym_for_stmt_token1, 2948), (aux_sym_while_stmt_token1, 2948),
     (aux_sym_repeat_stmt_token1, 2948), (aux_sym_raise_stmt_token1, 2948),
     (aux_sym_try_stmt_token1, 2948), (aux_sym_try_stmt_token2, 2948),
     (aux_sym_catch_clause_token1, 2948), (aux_sym_finally_clause_token1, 2948),
     (sym_c_style_comment, 3), (sym_pascal_style_comment, 3), (sym_pragma, 3),
     (sym__minus_before_base, 2950), (sym__plus_before_base, 2950)]"

lemma ts_parse_row_1165_scan: "row_scan tokens_2_1 0 ts_parse_row_1165 = Some (Suc (Suc (Suc (Suc (Suc (Suc 0))))))"
  unfolding ts_parse_row_1165_def by simp

text \<open>Lines 183915 to 184005.\<close>

definition ts_parse_row_1166 :: parse_row where
  "ts_parse_row_1166 =
    [(sym_identifier, 2952), (anon_sym_EQ, 2954),
     (aux_sym_ERR_unexpected_this_in_path_token1, 2952),
     (aux_sym_ERR_unexpected_super_in_path_token1, 2952), (sym_line_comment, 3),
     (anon_sym_LBRACE, 2952), (anon_sym_LPAREN, 2954), (aux_sym_test_pragma_token1, 2954),
     (aux_sym_once_pragma_token1, 2954), (aux_sym_must_call_pragma_token1, 2954),
     (aux_sym_export_pragma_token1, 2954), (sym_unsigned_int, 2952),
     (sym__explicit_signed_int, 2952), (sym_binary_int, 2954), (sym_octal_int, 2954),
     (sym_hex_int, 2954), (sym__explicit_signed_real, 2954), (sym_real_value, 2954),
     (aux_sym_bool_literal_with_string_token1, 2954),
     (aux_sym_bool_literal_with_string_token2, 2952),
     (aux_sym_bool_literal_with_string_token3, 2952), (sym_s_byte_char_str, 2954),
     (sym_d_byte_char_str, 2954), (aux_sym_time_token1, 2954), (anon_sym_PLUS, 2952),
     (anon_sym_DASH, 2952), (aux_sym_ltime_token1, 2954), (aux_sym_tod_token1, 2954),
     (aux_sym_ltod_token1, 2954), (aux_sym_short_date_token1, 2954),
     (aux_sym_long_date_token1, 2954), (aux_sym_short_date_and_time_token1, 2954),
     (aux_sym_long_date_and_time_token1, 2954), (aux_sym_sign_int_type_name_token1, 2952),
     (aux_sym_sign_int_type_name_token2, 2952), (aux_sym_sign_int_type_name_token3, 2952),
     (aux_sym_sign_int_type_name_token4, 2952), (aux_sym_unsign_int_type_name_token1, 2952),
     (aux_sym_unsign_int_type_name_token2, 2952), (aux_sym_unsign_int_type_name_token3, 2952),
     (aux_sym_unsign_int_type_name_token4, 2952), (aux_sym_real_type_name_token1, 2952),
     (aux_sym_real_type_name_token2, 2952), (aux_sym_string_name_token1, 2952),
     (aux_sym_char_name_token1, 2952), (aux_sym_multibits_type_name_token1, 2952),
     (aux_sym_multibits_type_name_token2, 2952), (aux_sym_multibits_type_name_token3, 2952),
     (aux_sym_multibits_type_name_token4, 2952), (anon_sym_SEMI, 2954), (anon_sym_PERCENT, 2954),
     (anon_sym_STAR, 2952), (aux_sym_ref_value_token1, 2952), (aux_sym_ref_addr_token1, 2952),
     (anon_sym_DOT_DOT_DOT, 2954), (aux_sym_method_decl_token1, 2952), (anon_sym_SLASH, 2952),
     (anon_sym_STAR_STAR, 2954), (anon_sym_AMP, 2954), (anon_sym_LT_GT, 2954), (anon_sym_LT, 2952),
     (anon_sym_GT, 2952), (anon_sym_LT_EQ, 2954), (anon_sym_GT_EQ, 2954),
     (aux_sym_or_operator_token1, 2952), (aux_sym_xor_operator_token1, 2952),
     (aux_sym_and_operator_token1, 2952), (aux_sym_mult_token1, 2952), (aux_sym_unary_token1, 2952),
     (aux_sym__stmt_token1, 2952), (aux_sym__stmt_token2, 2952), (aux_sym__stmt_token3, 2952),
     (aux_sym_if_stmt_token1, 2952), (aux_sym_if_stmt_token3, 2952),
     (aux_sym_case_stmt_token1, 2952), (aux_sym_case_stmt_token2, 2952),
     (aux_sym_for_stmt_token1, 2952), (aux_sym_while_stmt_token1, 2952),
     (aux_sym_repeat_stmt_token1, 2952), (aux_sym_raise_stmt_token1, 2952),
     (aux_sym_try_stmt_token1, 2952), (aux_sym_try_stmt_token2, 2952),
     (aux_sym_catch_clause_token1, 2952), (aux_sym_finally_clause_token1, 2952),
     (sym_c_style_comment, 3), (sym_pascal_style_comment, 3), (sym_pragma, 3),
     (sym__minus_before_base, 2954), (sym__plus_before_base, 2954)]"

lemma ts_parse_row_1166_scan: "row_scan tokens_2_1 0 ts_parse_row_1166 = Some (Suc (Suc (Suc (Suc (Suc (Suc 0))))))"
  unfolding ts_parse_row_1166_def by simp

text \<open>Lines 184006 to 184096.\<close>

definition ts_parse_row_1167 :: parse_row where
  "ts_parse_row_1167 =
    [(sym_identifier, 2956), (anon_sym_EQ, 2958),
     (aux_sym_ERR_unexpected_this_in_path_token1, 2956),
     (aux_sym_ERR_unexpected_super_in_path_token1, 2956), (sym_line_comment, 3),
     (anon_sym_LBRACE, 2956), (anon_sym_LPAREN, 2958), (aux_sym_test_pragma_token1, 2958),
     (aux_sym_once_pragma_token1, 2958), (aux_sym_must_call_pragma_token1, 2958),
     (aux_sym_export_pragma_token1, 2958), (sym_unsigned_int, 2956),
     (sym__explicit_signed_int, 2956), (sym_binary_int, 2958), (sym_octal_int, 2958),
     (sym_hex_int, 2958), (sym__explicit_signed_real, 2958), (sym_real_value, 2958),
     (aux_sym_bool_literal_with_string_token1, 2958),
     (aux_sym_bool_literal_with_string_token2, 2956),
     (aux_sym_bool_literal_with_string_token3, 2956), (sym_s_byte_char_str, 2958),
     (sym_d_byte_char_str, 2958), (aux_sym_time_token1, 2958), (anon_sym_PLUS, 2956),
     (anon_sym_DASH, 2956), (aux_sym_ltime_token1, 2958), (aux_sym_tod_token1, 2958),
     (aux_sym_ltod_token1, 2958), (aux_sym_short_date_token1, 2958),
     (aux_sym_long_date_token1, 2958), (aux_sym_short_date_and_time_token1, 2958),
     (aux_sym_long_date_and_time_token1, 2958), (aux_sym_sign_int_type_name_token1, 2956),
     (aux_sym_sign_int_type_name_token2, 2956), (aux_sym_sign_int_type_name_token3, 2956),
     (aux_sym_sign_int_type_name_token4, 2956), (aux_sym_unsign_int_type_name_token1, 2956),
     (aux_sym_unsign_int_type_name_token2, 2956), (aux_sym_unsign_int_type_name_token3, 2956),
     (aux_sym_unsign_int_type_name_token4, 2956), (aux_sym_real_type_name_token1, 2956),
     (aux_sym_real_type_name_token2, 2956), (aux_sym_string_name_token1, 2956),
     (aux_sym_char_name_token1, 2956), (aux_sym_multibits_type_name_token1, 2956),
     (aux_sym_multibits_type_name_token2, 2956), (aux_sym_multibits_type_name_token3, 2956),
     (aux_sym_multibits_type_name_token4, 2956), (anon_sym_SEMI, 2958), (anon_sym_PERCENT, 2958),
     (anon_sym_STAR, 2956), (aux_sym_ref_value_token1, 2956), (aux_sym_ref_addr_token1, 2956),
     (anon_sym_DOT_DOT_DOT, 2958), (aux_sym_method_decl_token1, 2956), (anon_sym_SLASH, 2956),
     (anon_sym_STAR_STAR, 2958), (anon_sym_AMP, 2958), (anon_sym_LT_GT, 2958), (anon_sym_LT, 2956),
     (anon_sym_GT, 2956), (anon_sym_LT_EQ, 2958), (anon_sym_GT_EQ, 2958),
     (aux_sym_or_operator_token1, 2956), (aux_sym_xor_operator_token1, 2956),
     (aux_sym_and_operator_token1, 2956), (aux_sym_mult_token1, 2956), (aux_sym_unary_token1, 2956),
     (aux_sym__stmt_token1, 2956), (aux_sym__stmt_token2, 2956), (aux_sym__stmt_token3, 2956),
     (aux_sym_if_stmt_token1, 2956), (aux_sym_if_stmt_token3, 2956),
     (aux_sym_case_stmt_token1, 2956), (aux_sym_case_stmt_token2, 2956),
     (aux_sym_for_stmt_token1, 2956), (aux_sym_while_stmt_token1, 2956),
     (aux_sym_repeat_stmt_token1, 2956), (aux_sym_raise_stmt_token1, 2956),
     (aux_sym_try_stmt_token1, 2956), (aux_sym_try_stmt_token2, 2956),
     (aux_sym_catch_clause_token1, 2956), (aux_sym_finally_clause_token1, 2956),
     (sym_c_style_comment, 3), (sym_pascal_style_comment, 3), (sym_pragma, 3),
     (sym__minus_before_base, 2958), (sym__plus_before_base, 2958)]"

lemma ts_parse_row_1167_scan: "row_scan tokens_2_1 0 ts_parse_row_1167 = Some (Suc (Suc (Suc (Suc (Suc (Suc 0))))))"
  unfolding ts_parse_row_1167_def by simp

text \<open>Lines 184097 to 184187.\<close>

definition ts_parse_row_1168 :: parse_row where
  "ts_parse_row_1168 =
    [(sym_identifier, 2960), (anon_sym_EQ, 2962),
     (aux_sym_ERR_unexpected_this_in_path_token1, 2960),
     (aux_sym_ERR_unexpected_super_in_path_token1, 2960), (sym_line_comment, 3),
     (anon_sym_LBRACE, 2960), (anon_sym_LPAREN, 2962), (aux_sym_test_pragma_token1, 2962),
     (aux_sym_once_pragma_token1, 2962), (aux_sym_must_call_pragma_token1, 2962),
     (aux_sym_export_pragma_token1, 2962), (sym_unsigned_int, 2960),
     (sym__explicit_signed_int, 2960), (sym_binary_int, 2962), (sym_octal_int, 2962),
     (sym_hex_int, 2962), (sym__explicit_signed_real, 2962), (sym_real_value, 2962),
     (aux_sym_bool_literal_with_string_token1, 2962),
     (aux_sym_bool_literal_with_string_token2, 2960),
     (aux_sym_bool_literal_with_string_token3, 2960), (sym_s_byte_char_str, 2962),
     (sym_d_byte_char_str, 2962), (aux_sym_time_token1, 2962), (anon_sym_PLUS, 2960),
     (anon_sym_DASH, 2960), (aux_sym_ltime_token1, 2962), (aux_sym_tod_token1, 2962),
     (aux_sym_ltod_token1, 2962), (aux_sym_short_date_token1, 2962),
     (aux_sym_long_date_token1, 2962), (aux_sym_short_date_and_time_token1, 2962),
     (aux_sym_long_date_and_time_token1, 2962), (aux_sym_sign_int_type_name_token1, 2960),
     (aux_sym_sign_int_type_name_token2, 2960), (aux_sym_sign_int_type_name_token3, 2960),
     (aux_sym_sign_int_type_name_token4, 2960), (aux_sym_unsign_int_type_name_token1, 2960),
     (aux_sym_unsign_int_type_name_token2, 2960), (aux_sym_unsign_int_type_name_token3, 2960),
     (aux_sym_unsign_int_type_name_token4, 2960), (aux_sym_real_type_name_token1, 2960),
     (aux_sym_real_type_name_token2, 2960), (aux_sym_string_name_token1, 2960),
     (aux_sym_char_name_token1, 2960), (aux_sym_multibits_type_name_token1, 2960),
     (aux_sym_multibits_type_name_token2, 2960), (aux_sym_multibits_type_name_token3, 2960),
     (aux_sym_multibits_type_name_token4, 2960), (anon_sym_SEMI, 2962), (anon_sym_PERCENT, 2962),
     (anon_sym_STAR, 2960), (aux_sym_ref_value_token1, 2960), (aux_sym_ref_addr_token1, 2960),
     (anon_sym_DOT_DOT_DOT, 2962), (aux_sym_method_decl_token1, 2960), (anon_sym_SLASH, 2960),
     (anon_sym_STAR_STAR, 2962), (anon_sym_AMP, 2962), (anon_sym_LT_GT, 2962), (anon_sym_LT, 2960),
     (anon_sym_GT, 2960), (anon_sym_LT_EQ, 2962), (anon_sym_GT_EQ, 2962),
     (aux_sym_or_operator_token1, 2960), (aux_sym_xor_operator_token1, 2960),
     (aux_sym_and_operator_token1, 2960), (aux_sym_mult_token1, 2960), (aux_sym_unary_token1, 2960),
     (aux_sym__stmt_token1, 2960), (aux_sym__stmt_token2, 2960), (aux_sym__stmt_token3, 2960),
     (aux_sym_if_stmt_token1, 2960), (aux_sym_if_stmt_token3, 2960),
     (aux_sym_case_stmt_token1, 2960), (aux_sym_case_stmt_token2, 2960),
     (aux_sym_for_stmt_token1, 2960), (aux_sym_while_stmt_token1, 2960),
     (aux_sym_repeat_stmt_token1, 2960), (aux_sym_raise_stmt_token1, 2960),
     (aux_sym_try_stmt_token1, 2960), (aux_sym_try_stmt_token2, 2960),
     (aux_sym_catch_clause_token1, 2960), (aux_sym_finally_clause_token1, 2960),
     (sym_c_style_comment, 3), (sym_pascal_style_comment, 3), (sym_pragma, 3),
     (sym__minus_before_base, 2962), (sym__plus_before_base, 2962)]"

lemma ts_parse_row_1168_scan: "row_scan tokens_2_1 0 ts_parse_row_1168 = Some (Suc (Suc (Suc (Suc (Suc (Suc 0))))))"
  unfolding ts_parse_row_1168_def by simp

text \<open>Lines 184188 to 184278.\<close>

definition ts_parse_row_1169 :: parse_row where
  "ts_parse_row_1169 =
    [(sym_identifier, 2964), (anon_sym_EQ, 2966),
     (aux_sym_ERR_unexpected_this_in_path_token1, 2964),
     (aux_sym_ERR_unexpected_super_in_path_token1, 2964), (sym_line_comment, 3),
     (anon_sym_LBRACE, 2964), (anon_sym_LPAREN, 2966), (aux_sym_test_pragma_token1, 2966),
     (aux_sym_once_pragma_token1, 2966), (aux_sym_must_call_pragma_token1, 2966),
     (aux_sym_export_pragma_token1, 2966), (sym_unsigned_int, 2964),
     (sym__explicit_signed_int, 2964), (sym_binary_int, 2966), (sym_octal_int, 2966),
     (sym_hex_int, 2966), (sym__explicit_signed_real, 2966), (sym_real_value, 2966),
     (aux_sym_bool_literal_with_string_token1, 2966),
     (aux_sym_bool_literal_with_string_token2, 2964),
     (aux_sym_bool_literal_with_string_token3, 2964), (sym_s_byte_char_str, 2966),
     (sym_d_byte_char_str, 2966), (aux_sym_time_token1, 2966), (anon_sym_PLUS, 2964),
     (anon_sym_DASH, 2964), (aux_sym_ltime_token1, 2966), (aux_sym_tod_token1, 2966),
     (aux_sym_ltod_token1, 2966), (aux_sym_short_date_token1, 2966),
     (aux_sym_long_date_token1, 2966), (aux_sym_short_date_and_time_token1, 2966),
     (aux_sym_long_date_and_time_token1, 2966), (aux_sym_sign_int_type_name_token1, 2964),
     (aux_sym_sign_int_type_name_token2, 2964), (aux_sym_sign_int_type_name_token3, 2964),
     (aux_sym_sign_int_type_name_token4, 2964), (aux_sym_unsign_int_type_name_token1, 2964),
     (aux_sym_unsign_int_type_name_token2, 2964), (aux_sym_unsign_int_type_name_token3, 2964),
     (aux_sym_unsign_int_type_name_token4, 2964), (aux_sym_real_type_name_token1, 2964),
     (aux_sym_real_type_name_token2, 2964), (aux_sym_string_name_token1, 2964),
     (aux_sym_char_name_token1, 2964), (aux_sym_multibits_type_name_token1, 2964),
     (aux_sym_multibits_type_name_token2, 2964), (aux_sym_multibits_type_name_token3, 2964),
     (aux_sym_multibits_type_name_token4, 2964), (anon_sym_SEMI, 2966), (anon_sym_PERCENT, 2966),
     (anon_sym_STAR, 2964), (aux_sym_ref_value_token1, 2964), (aux_sym_ref_addr_token1, 2964),
     (anon_sym_DOT_DOT_DOT, 2966), (aux_sym_method_decl_token1, 2964), (anon_sym_SLASH, 2964),
     (anon_sym_STAR_STAR, 2966), (anon_sym_AMP, 2966), (anon_sym_LT_GT, 2966), (anon_sym_LT, 2964),
     (anon_sym_GT, 2964), (anon_sym_LT_EQ, 2966), (anon_sym_GT_EQ, 2966),
     (aux_sym_or_operator_token1, 2964), (aux_sym_xor_operator_token1, 2964),
     (aux_sym_and_operator_token1, 2964), (aux_sym_mult_token1, 2964), (aux_sym_unary_token1, 2964),
     (aux_sym__stmt_token1, 2964), (aux_sym__stmt_token2, 2964), (aux_sym__stmt_token3, 2964),
     (aux_sym_if_stmt_token1, 2964), (aux_sym_if_stmt_token3, 2964),
     (aux_sym_case_stmt_token1, 2964), (aux_sym_case_stmt_token2, 2964),
     (aux_sym_for_stmt_token1, 2964), (aux_sym_while_stmt_token1, 2964),
     (aux_sym_repeat_stmt_token1, 2964), (aux_sym_raise_stmt_token1, 2964),
     (aux_sym_try_stmt_token1, 2964), (aux_sym_try_stmt_token2, 2964),
     (aux_sym_catch_clause_token1, 2964), (aux_sym_finally_clause_token1, 2964),
     (sym_c_style_comment, 3), (sym_pascal_style_comment, 3), (sym_pragma, 3),
     (sym__minus_before_base, 2966), (sym__plus_before_base, 2966)]"

lemma ts_parse_row_1169_scan: "row_scan tokens_2_1 0 ts_parse_row_1169 = Some (Suc (Suc (Suc (Suc (Suc (Suc 0))))))"
  unfolding ts_parse_row_1169_def by simp

text \<open>Lines 184279 to 184369.\<close>

definition ts_parse_row_1170 :: parse_row where
  "ts_parse_row_1170 =
    [(sym_identifier, 2968), (anon_sym_EQ, 2970),
     (aux_sym_ERR_unexpected_this_in_path_token1, 2968),
     (aux_sym_ERR_unexpected_super_in_path_token1, 2968), (sym_line_comment, 3),
     (anon_sym_LBRACE, 2968), (anon_sym_LPAREN, 2970), (aux_sym_test_pragma_token1, 2970),
     (aux_sym_once_pragma_token1, 2970), (aux_sym_must_call_pragma_token1, 2970),
     (aux_sym_export_pragma_token1, 2970), (sym_unsigned_int, 2968),
     (sym__explicit_signed_int, 2968), (sym_binary_int, 2970), (sym_octal_int, 2970),
     (sym_hex_int, 2970), (sym__explicit_signed_real, 2970), (sym_real_value, 2970),
     (aux_sym_bool_literal_with_string_token1, 2970),
     (aux_sym_bool_literal_with_string_token2, 2968),
     (aux_sym_bool_literal_with_string_token3, 2968), (sym_s_byte_char_str, 2970),
     (sym_d_byte_char_str, 2970), (aux_sym_time_token1, 2970), (anon_sym_PLUS, 2968),
     (anon_sym_DASH, 2968), (aux_sym_ltime_token1, 2970), (aux_sym_tod_token1, 2970),
     (aux_sym_ltod_token1, 2970), (aux_sym_short_date_token1, 2970),
     (aux_sym_long_date_token1, 2970), (aux_sym_short_date_and_time_token1, 2970),
     (aux_sym_long_date_and_time_token1, 2970), (aux_sym_sign_int_type_name_token1, 2968),
     (aux_sym_sign_int_type_name_token2, 2968), (aux_sym_sign_int_type_name_token3, 2968),
     (aux_sym_sign_int_type_name_token4, 2968), (aux_sym_unsign_int_type_name_token1, 2968),
     (aux_sym_unsign_int_type_name_token2, 2968), (aux_sym_unsign_int_type_name_token3, 2968),
     (aux_sym_unsign_int_type_name_token4, 2968), (aux_sym_real_type_name_token1, 2968),
     (aux_sym_real_type_name_token2, 2968), (aux_sym_string_name_token1, 2968),
     (aux_sym_char_name_token1, 2968), (aux_sym_multibits_type_name_token1, 2968),
     (aux_sym_multibits_type_name_token2, 2968), (aux_sym_multibits_type_name_token3, 2968),
     (aux_sym_multibits_type_name_token4, 2968), (anon_sym_SEMI, 2970), (anon_sym_PERCENT, 2970),
     (anon_sym_STAR, 2968), (aux_sym_ref_value_token1, 2968), (aux_sym_ref_addr_token1, 2968),
     (anon_sym_DOT_DOT_DOT, 2970), (aux_sym_method_decl_token1, 2968), (anon_sym_SLASH, 2968),
     (anon_sym_STAR_STAR, 2970), (anon_sym_AMP, 2970), (anon_sym_LT_GT, 2970), (anon_sym_LT, 2968),
     (anon_sym_GT, 2968), (anon_sym_LT_EQ, 2970), (anon_sym_GT_EQ, 2970),
     (aux_sym_or_operator_token1, 2968), (aux_sym_xor_operator_token1, 2968),
     (aux_sym_and_operator_token1, 2968), (aux_sym_mult_token1, 2968), (aux_sym_unary_token1, 2968),
     (aux_sym__stmt_token1, 2968), (aux_sym__stmt_token2, 2968), (aux_sym__stmt_token3, 2968),
     (aux_sym_if_stmt_token1, 2968), (aux_sym_if_stmt_token3, 2968),
     (aux_sym_case_stmt_token1, 2968), (aux_sym_case_stmt_token2, 2968),
     (aux_sym_for_stmt_token1, 2968), (aux_sym_while_stmt_token1, 2968),
     (aux_sym_repeat_stmt_token1, 2968), (aux_sym_raise_stmt_token1, 2968),
     (aux_sym_try_stmt_token1, 2968), (aux_sym_try_stmt_token2, 2968),
     (aux_sym_catch_clause_token1, 2968), (aux_sym_finally_clause_token1, 2968),
     (sym_c_style_comment, 3), (sym_pascal_style_comment, 3), (sym_pragma, 3),
     (sym__minus_before_base, 2970), (sym__plus_before_base, 2970)]"

lemma ts_parse_row_1170_scan: "row_scan tokens_2_1 0 ts_parse_row_1170 = Some (Suc (Suc (Suc (Suc (Suc (Suc 0))))))"
  unfolding ts_parse_row_1170_def by simp

text \<open>Lines 184370 to 184460.\<close>

definition ts_parse_row_1171 :: parse_row where
  "ts_parse_row_1171 =
    [(sym_identifier, 2972), (anon_sym_EQ, 2974),
     (aux_sym_ERR_unexpected_this_in_path_token1, 2972),
     (aux_sym_ERR_unexpected_super_in_path_token1, 2972), (sym_line_comment, 3),
     (anon_sym_LBRACE, 2972), (anon_sym_LPAREN, 2974), (aux_sym_test_pragma_token1, 2974),
     (aux_sym_once_pragma_token1, 2974), (aux_sym_must_call_pragma_token1, 2974),
     (aux_sym_export_pragma_token1, 2974), (sym_unsigned_int, 2972),
     (sym__explicit_signed_int, 2972), (sym_binary_int, 2974), (sym_octal_int, 2974),
     (sym_hex_int, 2974), (sym__explicit_signed_real, 2974), (sym_real_value, 2974),
     (aux_sym_bool_literal_with_string_token1, 2974),
     (aux_sym_bool_literal_with_string_token2, 2972),
     (aux_sym_bool_literal_with_string_token3, 2972), (sym_s_byte_char_str, 2974),
     (sym_d_byte_char_str, 2974), (aux_sym_time_token1, 2974), (anon_sym_PLUS, 2972),
     (anon_sym_DASH, 2972), (aux_sym_ltime_token1, 2974), (aux_sym_tod_token1, 2974),
     (aux_sym_ltod_token1, 2974), (aux_sym_short_date_token1, 2974),
     (aux_sym_long_date_token1, 2974), (aux_sym_short_date_and_time_token1, 2974),
     (aux_sym_long_date_and_time_token1, 2974), (aux_sym_sign_int_type_name_token1, 2972),
     (aux_sym_sign_int_type_name_token2, 2972), (aux_sym_sign_int_type_name_token3, 2972),
     (aux_sym_sign_int_type_name_token4, 2972), (aux_sym_unsign_int_type_name_token1, 2972),
     (aux_sym_unsign_int_type_name_token2, 2972), (aux_sym_unsign_int_type_name_token3, 2972),
     (aux_sym_unsign_int_type_name_token4, 2972), (aux_sym_real_type_name_token1, 2972),
     (aux_sym_real_type_name_token2, 2972), (aux_sym_string_name_token1, 2972),
     (aux_sym_char_name_token1, 2972), (aux_sym_multibits_type_name_token1, 2972),
     (aux_sym_multibits_type_name_token2, 2972), (aux_sym_multibits_type_name_token3, 2972),
     (aux_sym_multibits_type_name_token4, 2972), (anon_sym_SEMI, 2974), (anon_sym_PERCENT, 2974),
     (anon_sym_STAR, 2972), (aux_sym_ref_value_token1, 2972), (aux_sym_ref_addr_token1, 2972),
     (anon_sym_DOT_DOT_DOT, 2974), (aux_sym_method_decl_token1, 2972), (anon_sym_SLASH, 2972),
     (anon_sym_STAR_STAR, 2974), (anon_sym_AMP, 2974), (anon_sym_LT_GT, 2974), (anon_sym_LT, 2972),
     (anon_sym_GT, 2972), (anon_sym_LT_EQ, 2974), (anon_sym_GT_EQ, 2974),
     (aux_sym_or_operator_token1, 2972), (aux_sym_xor_operator_token1, 2972),
     (aux_sym_and_operator_token1, 2972), (aux_sym_mult_token1, 2972), (aux_sym_unary_token1, 2972),
     (aux_sym__stmt_token1, 2972), (aux_sym__stmt_token2, 2972), (aux_sym__stmt_token3, 2972),
     (aux_sym_if_stmt_token1, 2972), (aux_sym_if_stmt_token3, 2972),
     (aux_sym_case_stmt_token1, 2972), (aux_sym_case_stmt_token2, 2972),
     (aux_sym_for_stmt_token1, 2972), (aux_sym_while_stmt_token1, 2972),
     (aux_sym_repeat_stmt_token1, 2972), (aux_sym_raise_stmt_token1, 2972),
     (aux_sym_try_stmt_token1, 2972), (aux_sym_try_stmt_token2, 2972),
     (aux_sym_catch_clause_token1, 2972), (aux_sym_finally_clause_token1, 2972),
     (sym_c_style_comment, 3), (sym_pascal_style_comment, 3), (sym_pragma, 3),
     (sym__minus_before_base, 2974), (sym__plus_before_base, 2974)]"

lemma ts_parse_row_1171_scan: "row_scan tokens_2_1 0 ts_parse_row_1171 = Some (Suc (Suc (Suc (Suc (Suc (Suc 0))))))"
  unfolding ts_parse_row_1171_def by simp

text \<open>Lines 184461 to 184551.\<close>

definition ts_parse_row_1172 :: parse_row where
  "ts_parse_row_1172 =
    [(sym_identifier, 2976), (anon_sym_EQ, 2978),
     (aux_sym_ERR_unexpected_this_in_path_token1, 2976),
     (aux_sym_ERR_unexpected_super_in_path_token1, 2976), (sym_line_comment, 3),
     (anon_sym_LBRACE, 2976), (anon_sym_LPAREN, 2978), (aux_sym_test_pragma_token1, 2978),
     (aux_sym_once_pragma_token1, 2978), (aux_sym_must_call_pragma_token1, 2978),
     (aux_sym_export_pragma_token1, 2978), (sym_unsigned_int, 2976),
     (sym__explicit_signed_int, 2976), (sym_binary_int, 2978), (sym_octal_int, 2978),
     (sym_hex_int, 2978), (sym__explicit_signed_real, 2978), (sym_real_value, 2978),
     (aux_sym_bool_literal_with_string_token1, 2978),
     (aux_sym_bool_literal_with_string_token2, 2976),
     (aux_sym_bool_literal_with_string_token3, 2976), (sym_s_byte_char_str, 2978),
     (sym_d_byte_char_str, 2978), (aux_sym_time_token1, 2978), (anon_sym_PLUS, 2976),
     (anon_sym_DASH, 2976), (aux_sym_ltime_token1, 2978), (aux_sym_tod_token1, 2978),
     (aux_sym_ltod_token1, 2978), (aux_sym_short_date_token1, 2978),
     (aux_sym_long_date_token1, 2978), (aux_sym_short_date_and_time_token1, 2978),
     (aux_sym_long_date_and_time_token1, 2978), (aux_sym_sign_int_type_name_token1, 2976),
     (aux_sym_sign_int_type_name_token2, 2976), (aux_sym_sign_int_type_name_token3, 2976),
     (aux_sym_sign_int_type_name_token4, 2976), (aux_sym_unsign_int_type_name_token1, 2976),
     (aux_sym_unsign_int_type_name_token2, 2976), (aux_sym_unsign_int_type_name_token3, 2976),
     (aux_sym_unsign_int_type_name_token4, 2976), (aux_sym_real_type_name_token1, 2976),
     (aux_sym_real_type_name_token2, 2976), (aux_sym_string_name_token1, 2976),
     (aux_sym_char_name_token1, 2976), (aux_sym_multibits_type_name_token1, 2976),
     (aux_sym_multibits_type_name_token2, 2976), (aux_sym_multibits_type_name_token3, 2976),
     (aux_sym_multibits_type_name_token4, 2976), (anon_sym_SEMI, 2978), (anon_sym_PERCENT, 2978),
     (anon_sym_STAR, 2976), (aux_sym_ref_value_token1, 2976), (aux_sym_ref_addr_token1, 2976),
     (anon_sym_DOT_DOT_DOT, 2978), (aux_sym_method_decl_token1, 2976), (anon_sym_SLASH, 2976),
     (anon_sym_STAR_STAR, 2978), (anon_sym_AMP, 2978), (anon_sym_LT_GT, 2978), (anon_sym_LT, 2976),
     (anon_sym_GT, 2976), (anon_sym_LT_EQ, 2978), (anon_sym_GT_EQ, 2978),
     (aux_sym_or_operator_token1, 2976), (aux_sym_xor_operator_token1, 2976),
     (aux_sym_and_operator_token1, 2976), (aux_sym_mult_token1, 2976), (aux_sym_unary_token1, 2976),
     (aux_sym__stmt_token1, 2976), (aux_sym__stmt_token2, 2976), (aux_sym__stmt_token3, 2976),
     (aux_sym_if_stmt_token1, 2976), (aux_sym_if_stmt_token3, 2976),
     (aux_sym_case_stmt_token1, 2976), (aux_sym_case_stmt_token2, 2976),
     (aux_sym_for_stmt_token1, 2976), (aux_sym_while_stmt_token1, 2976),
     (aux_sym_repeat_stmt_token1, 2976), (aux_sym_raise_stmt_token1, 2976),
     (aux_sym_try_stmt_token1, 2976), (aux_sym_try_stmt_token2, 2976),
     (aux_sym_catch_clause_token1, 2976), (aux_sym_finally_clause_token1, 2976),
     (sym_c_style_comment, 3), (sym_pascal_style_comment, 3), (sym_pragma, 3),
     (sym__minus_before_base, 2978), (sym__plus_before_base, 2978)]"

lemma ts_parse_row_1172_scan: "row_scan tokens_2_1 0 ts_parse_row_1172 = Some (Suc (Suc (Suc (Suc (Suc (Suc 0))))))"
  unfolding ts_parse_row_1172_def by simp

text \<open>Lines 184552 to 184642.\<close>

definition ts_parse_row_1173 :: parse_row where
  "ts_parse_row_1173 =
    [(sym_identifier, 2980), (anon_sym_EQ, 2982),
     (aux_sym_ERR_unexpected_this_in_path_token1, 2980),
     (aux_sym_ERR_unexpected_super_in_path_token1, 2980), (sym_line_comment, 3),
     (anon_sym_LBRACE, 2980), (anon_sym_LPAREN, 2982), (aux_sym_test_pragma_token1, 2982),
     (aux_sym_once_pragma_token1, 2982), (aux_sym_must_call_pragma_token1, 2982),
     (aux_sym_export_pragma_token1, 2982), (sym_unsigned_int, 2980),
     (sym__explicit_signed_int, 2980), (sym_binary_int, 2982), (sym_octal_int, 2982),
     (sym_hex_int, 2982), (sym__explicit_signed_real, 2982), (sym_real_value, 2982),
     (aux_sym_bool_literal_with_string_token1, 2982),
     (aux_sym_bool_literal_with_string_token2, 2980),
     (aux_sym_bool_literal_with_string_token3, 2980), (sym_s_byte_char_str, 2982),
     (sym_d_byte_char_str, 2982), (aux_sym_time_token1, 2982), (anon_sym_PLUS, 2980),
     (anon_sym_DASH, 2980), (aux_sym_ltime_token1, 2982), (aux_sym_tod_token1, 2982),
     (aux_sym_ltod_token1, 2982), (aux_sym_short_date_token1, 2982),
     (aux_sym_long_date_token1, 2982), (aux_sym_short_date_and_time_token1, 2982),
     (aux_sym_long_date_and_time_token1, 2982), (aux_sym_sign_int_type_name_token1, 2980),
     (aux_sym_sign_int_type_name_token2, 2980), (aux_sym_sign_int_type_name_token3, 2980),
     (aux_sym_sign_int_type_name_token4, 2980), (aux_sym_unsign_int_type_name_token1, 2980),
     (aux_sym_unsign_int_type_name_token2, 2980), (aux_sym_unsign_int_type_name_token3, 2980),
     (aux_sym_unsign_int_type_name_token4, 2980), (aux_sym_real_type_name_token1, 2980),
     (aux_sym_real_type_name_token2, 2980), (aux_sym_string_name_token1, 2980),
     (aux_sym_char_name_token1, 2980), (aux_sym_multibits_type_name_token1, 2980),
     (aux_sym_multibits_type_name_token2, 2980), (aux_sym_multibits_type_name_token3, 2980),
     (aux_sym_multibits_type_name_token4, 2980), (anon_sym_SEMI, 2982), (anon_sym_PERCENT, 2982),
     (anon_sym_STAR, 2980), (aux_sym_ref_value_token1, 2980), (aux_sym_ref_addr_token1, 2980),
     (anon_sym_DOT_DOT_DOT, 2982), (aux_sym_method_decl_token1, 2980), (anon_sym_SLASH, 2980),
     (anon_sym_STAR_STAR, 2982), (anon_sym_AMP, 2982), (anon_sym_LT_GT, 2982), (anon_sym_LT, 2980),
     (anon_sym_GT, 2980), (anon_sym_LT_EQ, 2982), (anon_sym_GT_EQ, 2982),
     (aux_sym_or_operator_token1, 2980), (aux_sym_xor_operator_token1, 2980),
     (aux_sym_and_operator_token1, 2980), (aux_sym_mult_token1, 2980), (aux_sym_unary_token1, 2980),
     (aux_sym__stmt_token1, 2980), (aux_sym__stmt_token2, 2980), (aux_sym__stmt_token3, 2980),
     (aux_sym_if_stmt_token1, 2980), (aux_sym_if_stmt_token3, 2980),
     (aux_sym_case_stmt_token1, 2980), (aux_sym_case_stmt_token2, 2980),
     (aux_sym_for_stmt_token1, 2980), (aux_sym_while_stmt_token1, 2980),
     (aux_sym_repeat_stmt_token1, 2980), (aux_sym_raise_stmt_token1, 2980),
     (aux_sym_try_stmt_token1, 2980), (aux_sym_try_stmt_token2, 2980),
     (aux_sym_catch_clause_token1, 2980), (aux_sym_finally_clause_token1, 2980),
     (sym_c_style_comment, 3), (sym_pascal_style_comment, 3), (sym_pragma, 3),
     (sym__minus_before_base, 2982), (sym__plus_before_base, 2982)]"

lemma ts_parse_row_1173_scan: "row_scan tokens_2_1 0 ts_parse_row_1173 = Some (Suc (Suc (Suc (Suc (Suc (Suc 0))))))"
  unfolding ts_parse_row_1173_def by simp

text \<open>Lines 184643 to 184733.\<close>

definition ts_parse_row_1174 :: parse_row where
  "ts_parse_row_1174 =
    [(sym_identifier, 2984), (anon_sym_EQ, 2986),
     (aux_sym_ERR_unexpected_this_in_path_token1, 2984),
     (aux_sym_ERR_unexpected_super_in_path_token1, 2984), (sym_line_comment, 3),
     (anon_sym_LBRACE, 2984), (anon_sym_LPAREN, 2986), (aux_sym_test_pragma_token1, 2986),
     (aux_sym_once_pragma_token1, 2986), (aux_sym_must_call_pragma_token1, 2986),
     (aux_sym_export_pragma_token1, 2986), (sym_unsigned_int, 2984),
     (sym__explicit_signed_int, 2984), (sym_binary_int, 2986), (sym_octal_int, 2986),
     (sym_hex_int, 2986), (sym__explicit_signed_real, 2986), (sym_real_value, 2986),
     (aux_sym_bool_literal_with_string_token1, 2986),
     (aux_sym_bool_literal_with_string_token2, 2984),
     (aux_sym_bool_literal_with_string_token3, 2984), (sym_s_byte_char_str, 2986),
     (sym_d_byte_char_str, 2986), (aux_sym_time_token1, 2986), (anon_sym_PLUS, 2984),
     (anon_sym_DASH, 2984), (aux_sym_ltime_token1, 2986), (aux_sym_tod_token1, 2986),
     (aux_sym_ltod_token1, 2986), (aux_sym_short_date_token1, 2986),
     (aux_sym_long_date_token1, 2986), (aux_sym_short_date_and_time_token1, 2986),
     (aux_sym_long_date_and_time_token1, 2986), (aux_sym_sign_int_type_name_token1, 2984),
     (aux_sym_sign_int_type_name_token2, 2984), (aux_sym_sign_int_type_name_token3, 2984),
     (aux_sym_sign_int_type_name_token4, 2984), (aux_sym_unsign_int_type_name_token1, 2984),
     (aux_sym_unsign_int_type_name_token2, 2984), (aux_sym_unsign_int_type_name_token3, 2984),
     (aux_sym_unsign_int_type_name_token4, 2984), (aux_sym_real_type_name_token1, 2984),
     (aux_sym_real_type_name_token2, 2984), (aux_sym_string_name_token1, 2984),
     (aux_sym_char_name_token1, 2984), (aux_sym_multibits_type_name_token1, 2984),
     (aux_sym_multibits_type_name_token2, 2984), (aux_sym_multibits_type_name_token3, 2984),
     (aux_sym_multibits_type_name_token4, 2984), (anon_sym_SEMI, 2986), (anon_sym_PERCENT, 2986),
     (anon_sym_STAR, 2984), (aux_sym_ref_value_token1, 2984), (aux_sym_ref_addr_token1, 2984),
     (anon_sym_DOT_DOT_DOT, 2986), (aux_sym_method_decl_token1, 2984), (anon_sym_SLASH, 2984),
     (anon_sym_STAR_STAR, 2986), (anon_sym_AMP, 2986), (anon_sym_LT_GT, 2986), (anon_sym_LT, 2984),
     (anon_sym_GT, 2984), (anon_sym_LT_EQ, 2986), (anon_sym_GT_EQ, 2986),
     (aux_sym_or_operator_token1, 2984), (aux_sym_xor_operator_token1, 2984),
     (aux_sym_and_operator_token1, 2984), (aux_sym_mult_token1, 2984), (aux_sym_unary_token1, 2984),
     (aux_sym__stmt_token1, 2984), (aux_sym__stmt_token2, 2984), (aux_sym__stmt_token3, 2984),
     (aux_sym_if_stmt_token1, 2984), (aux_sym_if_stmt_token3, 2984),
     (aux_sym_case_stmt_token1, 2984), (aux_sym_case_stmt_token2, 2984),
     (aux_sym_for_stmt_token1, 2984), (aux_sym_while_stmt_token1, 2984),
     (aux_sym_repeat_stmt_token1, 2984), (aux_sym_raise_stmt_token1, 2984),
     (aux_sym_try_stmt_token1, 2984), (aux_sym_try_stmt_token2, 2984),
     (aux_sym_catch_clause_token1, 2984), (aux_sym_finally_clause_token1, 2984),
     (sym_c_style_comment, 3), (sym_pascal_style_comment, 3), (sym_pragma, 3),
     (sym__minus_before_base, 2986), (sym__plus_before_base, 2986)]"

lemma ts_parse_row_1174_scan: "row_scan tokens_2_1 0 ts_parse_row_1174 = Some (Suc (Suc (Suc (Suc (Suc (Suc 0))))))"
  unfolding ts_parse_row_1174_def by simp

text \<open>Lines 184734 to 184824.\<close>

definition ts_parse_row_1175 :: parse_row where
  "ts_parse_row_1175 =
    [(sym_identifier, 2988), (anon_sym_EQ, 2990),
     (aux_sym_ERR_unexpected_this_in_path_token1, 2988),
     (aux_sym_ERR_unexpected_super_in_path_token1, 2988), (sym_line_comment, 3),
     (anon_sym_LBRACE, 2988), (anon_sym_LPAREN, 2990), (aux_sym_test_pragma_token1, 2990),
     (aux_sym_once_pragma_token1, 2990), (aux_sym_must_call_pragma_token1, 2990),
     (aux_sym_export_pragma_token1, 2990), (sym_unsigned_int, 2988),
     (sym__explicit_signed_int, 2988), (sym_binary_int, 2990), (sym_octal_int, 2990),
     (sym_hex_int, 2990), (sym__explicit_signed_real, 2990), (sym_real_value, 2990),
     (aux_sym_bool_literal_with_string_token1, 2990),
     (aux_sym_bool_literal_with_string_token2, 2988),
     (aux_sym_bool_literal_with_string_token3, 2988), (sym_s_byte_char_str, 2990),
     (sym_d_byte_char_str, 2990), (aux_sym_time_token1, 2990), (anon_sym_PLUS, 2988),
     (anon_sym_DASH, 2988), (aux_sym_ltime_token1, 2990), (aux_sym_tod_token1, 2990),
     (aux_sym_ltod_token1, 2990), (aux_sym_short_date_token1, 2990),
     (aux_sym_long_date_token1, 2990), (aux_sym_short_date_and_time_token1, 2990),
     (aux_sym_long_date_and_time_token1, 2990), (aux_sym_sign_int_type_name_token1, 2988),
     (aux_sym_sign_int_type_name_token2, 2988), (aux_sym_sign_int_type_name_token3, 2988),
     (aux_sym_sign_int_type_name_token4, 2988), (aux_sym_unsign_int_type_name_token1, 2988),
     (aux_sym_unsign_int_type_name_token2, 2988), (aux_sym_unsign_int_type_name_token3, 2988),
     (aux_sym_unsign_int_type_name_token4, 2988), (aux_sym_real_type_name_token1, 2988),
     (aux_sym_real_type_name_token2, 2988), (aux_sym_string_name_token1, 2988),
     (aux_sym_char_name_token1, 2988), (aux_sym_multibits_type_name_token1, 2988),
     (aux_sym_multibits_type_name_token2, 2988), (aux_sym_multibits_type_name_token3, 2988),
     (aux_sym_multibits_type_name_token4, 2988), (anon_sym_SEMI, 2990), (anon_sym_PERCENT, 2990),
     (anon_sym_STAR, 2988), (aux_sym_ref_value_token1, 2988), (aux_sym_ref_addr_token1, 2988),
     (anon_sym_DOT_DOT_DOT, 2990), (aux_sym_method_decl_token1, 2988), (anon_sym_SLASH, 2988),
     (anon_sym_STAR_STAR, 2990), (anon_sym_AMP, 2990), (anon_sym_LT_GT, 2990), (anon_sym_LT, 2988),
     (anon_sym_GT, 2988), (anon_sym_LT_EQ, 2990), (anon_sym_GT_EQ, 2990),
     (aux_sym_or_operator_token1, 2988), (aux_sym_xor_operator_token1, 2988),
     (aux_sym_and_operator_token1, 2988), (aux_sym_mult_token1, 2988), (aux_sym_unary_token1, 2988),
     (aux_sym__stmt_token1, 2988), (aux_sym__stmt_token2, 2988), (aux_sym__stmt_token3, 2988),
     (aux_sym_if_stmt_token1, 2988), (aux_sym_if_stmt_token3, 2988),
     (aux_sym_case_stmt_token1, 2988), (aux_sym_case_stmt_token2, 2988),
     (aux_sym_for_stmt_token1, 2988), (aux_sym_while_stmt_token1, 2988),
     (aux_sym_repeat_stmt_token1, 2988), (aux_sym_raise_stmt_token1, 2988),
     (aux_sym_try_stmt_token1, 2988), (aux_sym_try_stmt_token2, 2988),
     (aux_sym_catch_clause_token1, 2988), (aux_sym_finally_clause_token1, 2988),
     (sym_c_style_comment, 3), (sym_pascal_style_comment, 3), (sym_pragma, 3),
     (sym__minus_before_base, 2990), (sym__plus_before_base, 2990)]"

lemma ts_parse_row_1175_scan: "row_scan tokens_2_1 0 ts_parse_row_1175 = Some (Suc (Suc (Suc (Suc (Suc (Suc 0))))))"
  unfolding ts_parse_row_1175_def by simp

text \<open>Lines 184825 to 184915.\<close>

definition ts_parse_row_1176 :: parse_row where
  "ts_parse_row_1176 =
    [(sym_identifier, 2992), (anon_sym_EQ, 2994),
     (aux_sym_ERR_unexpected_this_in_path_token1, 2992),
     (aux_sym_ERR_unexpected_super_in_path_token1, 2992), (sym_line_comment, 3),
     (anon_sym_LBRACE, 2992), (anon_sym_LPAREN, 2994), (aux_sym_test_pragma_token1, 2994),
     (aux_sym_once_pragma_token1, 2994), (aux_sym_must_call_pragma_token1, 2994),
     (aux_sym_export_pragma_token1, 2994), (sym_unsigned_int, 2992),
     (sym__explicit_signed_int, 2992), (sym_binary_int, 2994), (sym_octal_int, 2994),
     (sym_hex_int, 2994), (sym__explicit_signed_real, 2994), (sym_real_value, 2994),
     (aux_sym_bool_literal_with_string_token1, 2994),
     (aux_sym_bool_literal_with_string_token2, 2992),
     (aux_sym_bool_literal_with_string_token3, 2992), (sym_s_byte_char_str, 2994),
     (sym_d_byte_char_str, 2994), (aux_sym_time_token1, 2994), (anon_sym_PLUS, 2992),
     (anon_sym_DASH, 2992), (aux_sym_ltime_token1, 2994), (aux_sym_tod_token1, 2994),
     (aux_sym_ltod_token1, 2994), (aux_sym_short_date_token1, 2994),
     (aux_sym_long_date_token1, 2994), (aux_sym_short_date_and_time_token1, 2994),
     (aux_sym_long_date_and_time_token1, 2994), (aux_sym_sign_int_type_name_token1, 2992),
     (aux_sym_sign_int_type_name_token2, 2992), (aux_sym_sign_int_type_name_token3, 2992),
     (aux_sym_sign_int_type_name_token4, 2992), (aux_sym_unsign_int_type_name_token1, 2992),
     (aux_sym_unsign_int_type_name_token2, 2992), (aux_sym_unsign_int_type_name_token3, 2992),
     (aux_sym_unsign_int_type_name_token4, 2992), (aux_sym_real_type_name_token1, 2992),
     (aux_sym_real_type_name_token2, 2992), (aux_sym_string_name_token1, 2992),
     (aux_sym_char_name_token1, 2992), (aux_sym_multibits_type_name_token1, 2992),
     (aux_sym_multibits_type_name_token2, 2992), (aux_sym_multibits_type_name_token3, 2992),
     (aux_sym_multibits_type_name_token4, 2992), (anon_sym_SEMI, 2994), (anon_sym_PERCENT, 2994),
     (anon_sym_STAR, 2992), (aux_sym_ref_value_token1, 2992), (aux_sym_ref_addr_token1, 2992),
     (anon_sym_DOT_DOT_DOT, 2994), (aux_sym_method_decl_token1, 2992), (anon_sym_SLASH, 2992),
     (anon_sym_STAR_STAR, 2994), (anon_sym_AMP, 2994), (anon_sym_LT_GT, 2994), (anon_sym_LT, 2992),
     (anon_sym_GT, 2992), (anon_sym_LT_EQ, 2994), (anon_sym_GT_EQ, 2994),
     (aux_sym_or_operator_token1, 2992), (aux_sym_xor_operator_token1, 2992),
     (aux_sym_and_operator_token1, 2992), (aux_sym_mult_token1, 2992), (aux_sym_unary_token1, 2992),
     (aux_sym__stmt_token1, 2992), (aux_sym__stmt_token2, 2992), (aux_sym__stmt_token3, 2992),
     (aux_sym_if_stmt_token1, 2992), (aux_sym_if_stmt_token3, 2992),
     (aux_sym_case_stmt_token1, 2992), (aux_sym_case_stmt_token2, 2992),
     (aux_sym_for_stmt_token1, 2992), (aux_sym_while_stmt_token1, 2992),
     (aux_sym_repeat_stmt_token1, 2992), (aux_sym_raise_stmt_token1, 2992),
     (aux_sym_try_stmt_token1, 2992), (aux_sym_try_stmt_token2, 2992),
     (aux_sym_catch_clause_token1, 2992), (aux_sym_finally_clause_token1, 2992),
     (sym_c_style_comment, 3), (sym_pascal_style_comment, 3), (sym_pragma, 3),
     (sym__minus_before_base, 2994), (sym__plus_before_base, 2994)]"

lemma ts_parse_row_1176_scan: "row_scan tokens_2_1 0 ts_parse_row_1176 = Some (Suc (Suc (Suc (Suc (Suc (Suc 0))))))"
  unfolding ts_parse_row_1176_def by simp

text \<open>Lines 184916 to 185006.\<close>

definition ts_parse_row_1177 :: parse_row where
  "ts_parse_row_1177 =
    [(sym_identifier, 2996), (anon_sym_EQ, 2998),
     (aux_sym_ERR_unexpected_this_in_path_token1, 2996),
     (aux_sym_ERR_unexpected_super_in_path_token1, 2996), (sym_line_comment, 3),
     (anon_sym_LBRACE, 2996), (anon_sym_LPAREN, 2998), (aux_sym_test_pragma_token1, 2998),
     (aux_sym_once_pragma_token1, 2998), (aux_sym_must_call_pragma_token1, 2998),
     (aux_sym_export_pragma_token1, 2998), (sym_unsigned_int, 2996),
     (sym__explicit_signed_int, 2996), (sym_binary_int, 2998), (sym_octal_int, 2998),
     (sym_hex_int, 2998), (sym__explicit_signed_real, 2998), (sym_real_value, 2998),
     (aux_sym_bool_literal_with_string_token1, 2998),
     (aux_sym_bool_literal_with_string_token2, 2996),
     (aux_sym_bool_literal_with_string_token3, 2996), (sym_s_byte_char_str, 2998),
     (sym_d_byte_char_str, 2998), (aux_sym_time_token1, 2998), (anon_sym_PLUS, 2996),
     (anon_sym_DASH, 2996), (aux_sym_ltime_token1, 2998), (aux_sym_tod_token1, 2998),
     (aux_sym_ltod_token1, 2998), (aux_sym_short_date_token1, 2998),
     (aux_sym_long_date_token1, 2998), (aux_sym_short_date_and_time_token1, 2998),
     (aux_sym_long_date_and_time_token1, 2998), (aux_sym_sign_int_type_name_token1, 2996),
     (aux_sym_sign_int_type_name_token2, 2996), (aux_sym_sign_int_type_name_token3, 2996),
     (aux_sym_sign_int_type_name_token4, 2996), (aux_sym_unsign_int_type_name_token1, 2996),
     (aux_sym_unsign_int_type_name_token2, 2996), (aux_sym_unsign_int_type_name_token3, 2996),
     (aux_sym_unsign_int_type_name_token4, 2996), (aux_sym_real_type_name_token1, 2996),
     (aux_sym_real_type_name_token2, 2996), (aux_sym_string_name_token1, 2996),
     (aux_sym_char_name_token1, 2996), (aux_sym_multibits_type_name_token1, 2996),
     (aux_sym_multibits_type_name_token2, 2996), (aux_sym_multibits_type_name_token3, 2996),
     (aux_sym_multibits_type_name_token4, 2996), (anon_sym_SEMI, 2998), (anon_sym_PERCENT, 2998),
     (anon_sym_STAR, 2996), (aux_sym_ref_value_token1, 2996), (aux_sym_ref_addr_token1, 2996),
     (anon_sym_DOT_DOT_DOT, 2998), (aux_sym_method_decl_token1, 2996), (anon_sym_SLASH, 2996),
     (anon_sym_STAR_STAR, 2998), (anon_sym_AMP, 2998), (anon_sym_LT_GT, 2998), (anon_sym_LT, 2996),
     (anon_sym_GT, 2996), (anon_sym_LT_EQ, 2998), (anon_sym_GT_EQ, 2998),
     (aux_sym_or_operator_token1, 2996), (aux_sym_xor_operator_token1, 2996),
     (aux_sym_and_operator_token1, 2996), (aux_sym_mult_token1, 2996), (aux_sym_unary_token1, 2996),
     (aux_sym__stmt_token1, 2996), (aux_sym__stmt_token2, 2996), (aux_sym__stmt_token3, 2996),
     (aux_sym_if_stmt_token1, 2996), (aux_sym_if_stmt_token3, 2996),
     (aux_sym_case_stmt_token1, 2996), (aux_sym_case_stmt_token2, 2996),
     (aux_sym_for_stmt_token1, 2996), (aux_sym_while_stmt_token1, 2996),
     (aux_sym_repeat_stmt_token1, 2996), (aux_sym_raise_stmt_token1, 2996),
     (aux_sym_try_stmt_token1, 2996), (aux_sym_try_stmt_token2, 2996),
     (aux_sym_catch_clause_token1, 2996), (aux_sym_finally_clause_token1, 2996),
     (sym_c_style_comment, 3), (sym_pascal_style_comment, 3), (sym_pragma, 3),
     (sym__minus_before_base, 2998), (sym__plus_before_base, 2998)]"

lemma ts_parse_row_1177_scan: "row_scan tokens_2_1 0 ts_parse_row_1177 = Some (Suc (Suc (Suc (Suc (Suc (Suc 0))))))"
  unfolding ts_parse_row_1177_def by simp

text \<open>Lines 185007 to 185097.\<close>

definition ts_parse_row_1178 :: parse_row where
  "ts_parse_row_1178 =
    [(sym_identifier, 3000), (anon_sym_EQ, 3002),
     (aux_sym_ERR_unexpected_this_in_path_token1, 3000),
     (aux_sym_ERR_unexpected_super_in_path_token1, 3000), (sym_line_comment, 3),
     (anon_sym_LBRACE, 3000), (anon_sym_LPAREN, 3002), (aux_sym_test_pragma_token1, 3002),
     (aux_sym_once_pragma_token1, 3002), (aux_sym_must_call_pragma_token1, 3002),
     (aux_sym_export_pragma_token1, 3002), (sym_unsigned_int, 3000),
     (sym__explicit_signed_int, 3000), (sym_binary_int, 3002), (sym_octal_int, 3002),
     (sym_hex_int, 3002), (sym__explicit_signed_real, 3002), (sym_real_value, 3002),
     (aux_sym_bool_literal_with_string_token1, 3002),
     (aux_sym_bool_literal_with_string_token2, 3000),
     (aux_sym_bool_literal_with_string_token3, 3000), (sym_s_byte_char_str, 3002),
     (sym_d_byte_char_str, 3002), (aux_sym_time_token1, 3002), (anon_sym_PLUS, 3000),
     (anon_sym_DASH, 3000), (aux_sym_ltime_token1, 3002), (aux_sym_tod_token1, 3002),
     (aux_sym_ltod_token1, 3002), (aux_sym_short_date_token1, 3002),
     (aux_sym_long_date_token1, 3002), (aux_sym_short_date_and_time_token1, 3002),
     (aux_sym_long_date_and_time_token1, 3002), (aux_sym_sign_int_type_name_token1, 3000),
     (aux_sym_sign_int_type_name_token2, 3000), (aux_sym_sign_int_type_name_token3, 3000),
     (aux_sym_sign_int_type_name_token4, 3000), (aux_sym_unsign_int_type_name_token1, 3000),
     (aux_sym_unsign_int_type_name_token2, 3000), (aux_sym_unsign_int_type_name_token3, 3000),
     (aux_sym_unsign_int_type_name_token4, 3000), (aux_sym_real_type_name_token1, 3000),
     (aux_sym_real_type_name_token2, 3000), (aux_sym_string_name_token1, 3000),
     (aux_sym_char_name_token1, 3000), (aux_sym_multibits_type_name_token1, 3000),
     (aux_sym_multibits_type_name_token2, 3000), (aux_sym_multibits_type_name_token3, 3000),
     (aux_sym_multibits_type_name_token4, 3000), (anon_sym_SEMI, 3002), (anon_sym_PERCENT, 3002),
     (anon_sym_STAR, 3000), (aux_sym_ref_value_token1, 3000), (aux_sym_ref_addr_token1, 3000),
     (anon_sym_DOT_DOT_DOT, 3002), (aux_sym_method_decl_token1, 3000), (anon_sym_SLASH, 3000),
     (anon_sym_STAR_STAR, 3002), (anon_sym_AMP, 3002), (anon_sym_LT_GT, 3002), (anon_sym_LT, 3000),
     (anon_sym_GT, 3000), (anon_sym_LT_EQ, 3002), (anon_sym_GT_EQ, 3002),
     (aux_sym_or_operator_token1, 3000), (aux_sym_xor_operator_token1, 3000),
     (aux_sym_and_operator_token1, 3000), (aux_sym_mult_token1, 3000), (aux_sym_unary_token1, 3000),
     (aux_sym__stmt_token1, 3000), (aux_sym__stmt_token2, 3000), (aux_sym__stmt_token3, 3000),
     (aux_sym_if_stmt_token1, 3000), (aux_sym_if_stmt_token3, 3000),
     (aux_sym_case_stmt_token1, 3000), (aux_sym_case_stmt_token2, 3000),
     (aux_sym_for_stmt_token1, 3000), (aux_sym_while_stmt_token1, 3000),
     (aux_sym_repeat_stmt_token1, 3000), (aux_sym_raise_stmt_token1, 3000),
     (aux_sym_try_stmt_token1, 3000), (aux_sym_try_stmt_token2, 3000),
     (aux_sym_catch_clause_token1, 3000), (aux_sym_finally_clause_token1, 3000),
     (sym_c_style_comment, 3), (sym_pascal_style_comment, 3), (sym_pragma, 3),
     (sym__minus_before_base, 3002), (sym__plus_before_base, 3002)]"

lemma ts_parse_row_1178_scan: "row_scan tokens_2_1 0 ts_parse_row_1178 = Some (Suc (Suc (Suc (Suc (Suc (Suc 0))))))"
  unfolding ts_parse_row_1178_def by simp

text \<open>Lines 185098 to 185188.\<close>

definition ts_parse_row_1179 :: parse_row where
  "ts_parse_row_1179 =
    [(sym_identifier, 3004), (anon_sym_EQ, 3006),
     (aux_sym_ERR_unexpected_this_in_path_token1, 3004),
     (aux_sym_ERR_unexpected_super_in_path_token1, 3004), (sym_line_comment, 3),
     (anon_sym_LBRACE, 3004), (anon_sym_LPAREN, 3006), (aux_sym_test_pragma_token1, 3006),
     (aux_sym_once_pragma_token1, 3006), (aux_sym_must_call_pragma_token1, 3006),
     (aux_sym_export_pragma_token1, 3006), (sym_unsigned_int, 3004),
     (sym__explicit_signed_int, 3004), (sym_binary_int, 3006), (sym_octal_int, 3006),
     (sym_hex_int, 3006), (sym__explicit_signed_real, 3006), (sym_real_value, 3006),
     (aux_sym_bool_literal_with_string_token1, 3006),
     (aux_sym_bool_literal_with_string_token2, 3004),
     (aux_sym_bool_literal_with_string_token3, 3004), (sym_s_byte_char_str, 3006),
     (sym_d_byte_char_str, 3006), (aux_sym_time_token1, 3006), (anon_sym_PLUS, 3004),
     (anon_sym_DASH, 3004), (aux_sym_ltime_token1, 3006), (aux_sym_tod_token1, 3006),
     (aux_sym_ltod_token1, 3006), (aux_sym_short_date_token1, 3006),
     (aux_sym_long_date_token1, 3006), (aux_sym_short_date_and_time_token1, 3006),
     (aux_sym_long_date_and_time_token1, 3006), (aux_sym_sign_int_type_name_token1, 3004),
     (aux_sym_sign_int_type_name_token2, 3004), (aux_sym_sign_int_type_name_token3, 3004),
     (aux_sym_sign_int_type_name_token4, 3004), (aux_sym_unsign_int_type_name_token1, 3004),
     (aux_sym_unsign_int_type_name_token2, 3004), (aux_sym_unsign_int_type_name_token3, 3004),
     (aux_sym_unsign_int_type_name_token4, 3004), (aux_sym_real_type_name_token1, 3004),
     (aux_sym_real_type_name_token2, 3004), (aux_sym_string_name_token1, 3004),
     (aux_sym_char_name_token1, 3004), (aux_sym_multibits_type_name_token1, 3004),
     (aux_sym_multibits_type_name_token2, 3004), (aux_sym_multibits_type_name_token3, 3004),
     (aux_sym_multibits_type_name_token4, 3004), (anon_sym_SEMI, 3006), (anon_sym_PERCENT, 3006),
     (anon_sym_STAR, 3004), (aux_sym_ref_value_token1, 3004), (aux_sym_ref_addr_token1, 3004),
     (anon_sym_DOT_DOT_DOT, 3006), (aux_sym_method_decl_token1, 3004), (anon_sym_SLASH, 3004),
     (anon_sym_STAR_STAR, 3006), (anon_sym_AMP, 3006), (anon_sym_LT_GT, 3006), (anon_sym_LT, 3004),
     (anon_sym_GT, 3004), (anon_sym_LT_EQ, 3006), (anon_sym_GT_EQ, 3006),
     (aux_sym_or_operator_token1, 3004), (aux_sym_xor_operator_token1, 3004),
     (aux_sym_and_operator_token1, 3004), (aux_sym_mult_token1, 3004), (aux_sym_unary_token1, 3004),
     (aux_sym__stmt_token1, 3004), (aux_sym__stmt_token2, 3004), (aux_sym__stmt_token3, 3004),
     (aux_sym_if_stmt_token1, 3004), (aux_sym_if_stmt_token3, 3004),
     (aux_sym_case_stmt_token1, 3004), (aux_sym_case_stmt_token2, 3004),
     (aux_sym_for_stmt_token1, 3004), (aux_sym_while_stmt_token1, 3004),
     (aux_sym_repeat_stmt_token1, 3004), (aux_sym_raise_stmt_token1, 3004),
     (aux_sym_try_stmt_token1, 3004), (aux_sym_try_stmt_token2, 3004),
     (aux_sym_catch_clause_token1, 3004), (aux_sym_finally_clause_token1, 3004),
     (sym_c_style_comment, 3), (sym_pascal_style_comment, 3), (sym_pragma, 3),
     (sym__minus_before_base, 3006), (sym__plus_before_base, 3006)]"

lemma ts_parse_row_1179_scan: "row_scan tokens_2_1 0 ts_parse_row_1179 = Some (Suc (Suc (Suc (Suc (Suc (Suc 0))))))"
  unfolding ts_parse_row_1179_def by simp

text \<open>Lines 185189 to 185279.\<close>

definition ts_parse_row_1180 :: parse_row where
  "ts_parse_row_1180 =
    [(sym_identifier, 3008), (anon_sym_EQ, 3010),
     (aux_sym_ERR_unexpected_this_in_path_token1, 3008),
     (aux_sym_ERR_unexpected_super_in_path_token1, 3008), (sym_line_comment, 3),
     (anon_sym_LBRACE, 3008), (anon_sym_LPAREN, 3010), (aux_sym_test_pragma_token1, 3010),
     (aux_sym_once_pragma_token1, 3010), (aux_sym_must_call_pragma_token1, 3010),
     (aux_sym_export_pragma_token1, 3010), (sym_unsigned_int, 3008),
     (sym__explicit_signed_int, 3008), (sym_binary_int, 3010), (sym_octal_int, 3010),
     (sym_hex_int, 3010), (sym__explicit_signed_real, 3010), (sym_real_value, 3010),
     (aux_sym_bool_literal_with_string_token1, 3010),
     (aux_sym_bool_literal_with_string_token2, 3008),
     (aux_sym_bool_literal_with_string_token3, 3008), (sym_s_byte_char_str, 3010),
     (sym_d_byte_char_str, 3010), (aux_sym_time_token1, 3010), (anon_sym_PLUS, 3008),
     (anon_sym_DASH, 3008), (aux_sym_ltime_token1, 3010), (aux_sym_tod_token1, 3010),
     (aux_sym_ltod_token1, 3010), (aux_sym_short_date_token1, 3010),
     (aux_sym_long_date_token1, 3010), (aux_sym_short_date_and_time_token1, 3010),
     (aux_sym_long_date_and_time_token1, 3010), (aux_sym_sign_int_type_name_token1, 3008),
     (aux_sym_sign_int_type_name_token2, 3008), (aux_sym_sign_int_type_name_token3, 3008),
     (aux_sym_sign_int_type_name_token4, 3008), (aux_sym_unsign_int_type_name_token1, 3008),
     (aux_sym_unsign_int_type_name_token2, 3008), (aux_sym_unsign_int_type_name_token3, 3008),
     (aux_sym_unsign_int_type_name_token4, 3008), (aux_sym_real_type_name_token1, 3008),
     (aux_sym_real_type_name_token2, 3008), (aux_sym_string_name_token1, 3008),
     (aux_sym_char_name_token1, 3008), (aux_sym_multibits_type_name_token1, 3008),
     (aux_sym_multibits_type_name_token2, 3008), (aux_sym_multibits_type_name_token3, 3008),
     (aux_sym_multibits_type_name_token4, 3008), (anon_sym_SEMI, 3010), (anon_sym_PERCENT, 3010),
     (anon_sym_STAR, 3008), (aux_sym_ref_value_token1, 3008), (aux_sym_ref_addr_token1, 3008),
     (anon_sym_DOT_DOT_DOT, 3010), (aux_sym_method_decl_token1, 3008), (anon_sym_SLASH, 3008),
     (anon_sym_STAR_STAR, 3010), (anon_sym_AMP, 3010), (anon_sym_LT_GT, 3010), (anon_sym_LT, 3008),
     (anon_sym_GT, 3008), (anon_sym_LT_EQ, 3010), (anon_sym_GT_EQ, 3010),
     (aux_sym_or_operator_token1, 3008), (aux_sym_xor_operator_token1, 3008),
     (aux_sym_and_operator_token1, 3008), (aux_sym_mult_token1, 3008), (aux_sym_unary_token1, 3008),
     (aux_sym__stmt_token1, 3008), (aux_sym__stmt_token2, 3008), (aux_sym__stmt_token3, 3008),
     (aux_sym_if_stmt_token1, 3008), (aux_sym_if_stmt_token3, 3008),
     (aux_sym_case_stmt_token1, 3008), (aux_sym_case_stmt_token2, 3008),
     (aux_sym_for_stmt_token1, 3008), (aux_sym_while_stmt_token1, 3008),
     (aux_sym_repeat_stmt_token1, 3008), (aux_sym_raise_stmt_token1, 3008),
     (aux_sym_try_stmt_token1, 3008), (aux_sym_try_stmt_token2, 3008),
     (aux_sym_catch_clause_token1, 3008), (aux_sym_finally_clause_token1, 3008),
     (sym_c_style_comment, 3), (sym_pascal_style_comment, 3), (sym_pragma, 3),
     (sym__minus_before_base, 3010), (sym__plus_before_base, 3010)]"

lemma ts_parse_row_1180_scan: "row_scan tokens_2_1 0 ts_parse_row_1180 = Some (Suc (Suc (Suc (Suc (Suc (Suc 0))))))"
  unfolding ts_parse_row_1180_def by simp

text \<open>Lines 185280 to 185370.\<close>

definition ts_parse_row_1181 :: parse_row where
  "ts_parse_row_1181 =
    [(sym_identifier, 3012), (anon_sym_EQ, 3014),
     (aux_sym_ERR_unexpected_this_in_path_token1, 3012),
     (aux_sym_ERR_unexpected_super_in_path_token1, 3012), (sym_line_comment, 3),
     (anon_sym_LBRACE, 3012), (anon_sym_LPAREN, 3014), (aux_sym_test_pragma_token1, 3014),
     (aux_sym_once_pragma_token1, 3014), (aux_sym_must_call_pragma_token1, 3014),
     (aux_sym_export_pragma_token1, 3014), (sym_unsigned_int, 3012),
     (sym__explicit_signed_int, 3012), (sym_binary_int, 3014), (sym_octal_int, 3014),
     (sym_hex_int, 3014), (sym__explicit_signed_real, 3014), (sym_real_value, 3014),
     (aux_sym_bool_literal_with_string_token1, 3014),
     (aux_sym_bool_literal_with_string_token2, 3012),
     (aux_sym_bool_literal_with_string_token3, 3012), (sym_s_byte_char_str, 3014),
     (sym_d_byte_char_str, 3014), (aux_sym_time_token1, 3014), (anon_sym_PLUS, 3012),
     (anon_sym_DASH, 3012), (aux_sym_ltime_token1, 3014), (aux_sym_tod_token1, 3014),
     (aux_sym_ltod_token1, 3014), (aux_sym_short_date_token1, 3014),
     (aux_sym_long_date_token1, 3014), (aux_sym_short_date_and_time_token1, 3014),
     (aux_sym_long_date_and_time_token1, 3014), (aux_sym_sign_int_type_name_token1, 3012),
     (aux_sym_sign_int_type_name_token2, 3012), (aux_sym_sign_int_type_name_token3, 3012),
     (aux_sym_sign_int_type_name_token4, 3012), (aux_sym_unsign_int_type_name_token1, 3012),
     (aux_sym_unsign_int_type_name_token2, 3012), (aux_sym_unsign_int_type_name_token3, 3012),
     (aux_sym_unsign_int_type_name_token4, 3012), (aux_sym_real_type_name_token1, 3012),
     (aux_sym_real_type_name_token2, 3012), (aux_sym_string_name_token1, 3012),
     (aux_sym_char_name_token1, 3012), (aux_sym_multibits_type_name_token1, 3012),
     (aux_sym_multibits_type_name_token2, 3012), (aux_sym_multibits_type_name_token3, 3012),
     (aux_sym_multibits_type_name_token4, 3012), (anon_sym_SEMI, 3014), (anon_sym_PERCENT, 3014),
     (anon_sym_STAR, 3012), (aux_sym_ref_value_token1, 3012), (aux_sym_ref_addr_token1, 3012),
     (anon_sym_DOT_DOT_DOT, 3014), (aux_sym_method_decl_token1, 3012), (anon_sym_SLASH, 3012),
     (anon_sym_STAR_STAR, 3014), (anon_sym_AMP, 3014), (anon_sym_LT_GT, 3014), (anon_sym_LT, 3012),
     (anon_sym_GT, 3012), (anon_sym_LT_EQ, 3014), (anon_sym_GT_EQ, 3014),
     (aux_sym_or_operator_token1, 3012), (aux_sym_xor_operator_token1, 3012),
     (aux_sym_and_operator_token1, 3012), (aux_sym_mult_token1, 3012), (aux_sym_unary_token1, 3012),
     (aux_sym__stmt_token1, 3012), (aux_sym__stmt_token2, 3012), (aux_sym__stmt_token3, 3012),
     (aux_sym_if_stmt_token1, 3012), (aux_sym_if_stmt_token3, 3012),
     (aux_sym_case_stmt_token1, 3012), (aux_sym_case_stmt_token2, 3012),
     (aux_sym_for_stmt_token1, 3012), (aux_sym_while_stmt_token1, 3012),
     (aux_sym_repeat_stmt_token1, 3012), (aux_sym_raise_stmt_token1, 3012),
     (aux_sym_try_stmt_token1, 3012), (aux_sym_try_stmt_token2, 3012),
     (aux_sym_catch_clause_token1, 3012), (aux_sym_finally_clause_token1, 3012),
     (sym_c_style_comment, 3), (sym_pascal_style_comment, 3), (sym_pragma, 3),
     (sym__minus_before_base, 3014), (sym__plus_before_base, 3014)]"

lemma ts_parse_row_1181_scan: "row_scan tokens_2_1 0 ts_parse_row_1181 = Some (Suc (Suc (Suc (Suc (Suc (Suc 0))))))"
  unfolding ts_parse_row_1181_def by simp

text \<open>Lines 185371 to 185461.\<close>

definition ts_parse_row_1182 :: parse_row where
  "ts_parse_row_1182 =
    [(sym_identifier, 3016), (anon_sym_EQ, 3018),
     (aux_sym_ERR_unexpected_this_in_path_token1, 3016),
     (aux_sym_ERR_unexpected_super_in_path_token1, 3016), (sym_line_comment, 3),
     (anon_sym_LBRACE, 3016), (anon_sym_LPAREN, 3018), (aux_sym_test_pragma_token1, 3018),
     (aux_sym_once_pragma_token1, 3018), (aux_sym_must_call_pragma_token1, 3018),
     (aux_sym_export_pragma_token1, 3018), (sym_unsigned_int, 3016),
     (sym__explicit_signed_int, 3016), (sym_binary_int, 3018), (sym_octal_int, 3018),
     (sym_hex_int, 3018), (sym__explicit_signed_real, 3018), (sym_real_value, 3018),
     (aux_sym_bool_literal_with_string_token1, 3018),
     (aux_sym_bool_literal_with_string_token2, 3016),
     (aux_sym_bool_literal_with_string_token3, 3016), (sym_s_byte_char_str, 3018),
     (sym_d_byte_char_str, 3018), (aux_sym_time_token1, 3018), (anon_sym_PLUS, 3016),
     (anon_sym_DASH, 3016), (aux_sym_ltime_token1, 3018), (aux_sym_tod_token1, 3018),
     (aux_sym_ltod_token1, 3018), (aux_sym_short_date_token1, 3018),
     (aux_sym_long_date_token1, 3018), (aux_sym_short_date_and_time_token1, 3018),
     (aux_sym_long_date_and_time_token1, 3018), (aux_sym_sign_int_type_name_token1, 3016),
     (aux_sym_sign_int_type_name_token2, 3016), (aux_sym_sign_int_type_name_token3, 3016),
     (aux_sym_sign_int_type_name_token4, 3016), (aux_sym_unsign_int_type_name_token1, 3016),
     (aux_sym_unsign_int_type_name_token2, 3016), (aux_sym_unsign_int_type_name_token3, 3016),
     (aux_sym_unsign_int_type_name_token4, 3016), (aux_sym_real_type_name_token1, 3016),
     (aux_sym_real_type_name_token2, 3016), (aux_sym_string_name_token1, 3016),
     (aux_sym_char_name_token1, 3016), (aux_sym_multibits_type_name_token1, 3016),
     (aux_sym_multibits_type_name_token2, 3016), (aux_sym_multibits_type_name_token3, 3016),
     (aux_sym_multibits_type_name_token4, 3016), (anon_sym_SEMI, 3018), (anon_sym_PERCENT, 3018),
     (anon_sym_STAR, 3016), (aux_sym_ref_value_token1, 3016), (aux_sym_ref_addr_token1, 3016),
     (anon_sym_DOT_DOT_DOT, 3018), (aux_sym_method_decl_token1, 3016), (anon_sym_SLASH, 3016),
     (anon_sym_STAR_STAR, 3018), (anon_sym_AMP, 3018), (anon_sym_LT_GT, 3018), (anon_sym_LT, 3016),
     (anon_sym_GT, 3016), (anon_sym_LT_EQ, 3018), (anon_sym_GT_EQ, 3018),
     (aux_sym_or_operator_token1, 3016), (aux_sym_xor_operator_token1, 3016),
     (aux_sym_and_operator_token1, 3016), (aux_sym_mult_token1, 3016), (aux_sym_unary_token1, 3016),
     (aux_sym__stmt_token1, 3016), (aux_sym__stmt_token2, 3016), (aux_sym__stmt_token3, 3016),
     (aux_sym_if_stmt_token1, 3016), (aux_sym_if_stmt_token3, 3016),
     (aux_sym_case_stmt_token1, 3016), (aux_sym_case_stmt_token2, 3016),
     (aux_sym_for_stmt_token1, 3016), (aux_sym_while_stmt_token1, 3016),
     (aux_sym_repeat_stmt_token1, 3016), (aux_sym_raise_stmt_token1, 3016),
     (aux_sym_try_stmt_token1, 3016), (aux_sym_try_stmt_token2, 3016),
     (aux_sym_catch_clause_token1, 3016), (aux_sym_finally_clause_token1, 3016),
     (sym_c_style_comment, 3), (sym_pascal_style_comment, 3), (sym_pragma, 3),
     (sym__minus_before_base, 3018), (sym__plus_before_base, 3018)]"

lemma ts_parse_row_1182_scan: "row_scan tokens_2_1 0 ts_parse_row_1182 = Some (Suc (Suc (Suc (Suc (Suc (Suc 0))))))"
  unfolding ts_parse_row_1182_def by simp

text \<open>Lines 185462 to 185552.\<close>

definition ts_parse_row_1183 :: parse_row where
  "ts_parse_row_1183 =
    [(sym_identifier, 3020), (anon_sym_EQ, 3022),
     (aux_sym_ERR_unexpected_this_in_path_token1, 3020),
     (aux_sym_ERR_unexpected_super_in_path_token1, 3020), (sym_line_comment, 3),
     (anon_sym_LBRACE, 3020), (anon_sym_LPAREN, 3022), (aux_sym_test_pragma_token1, 3022),
     (aux_sym_once_pragma_token1, 3022), (aux_sym_must_call_pragma_token1, 3022),
     (aux_sym_export_pragma_token1, 3022), (sym_unsigned_int, 3020),
     (sym__explicit_signed_int, 3020), (sym_binary_int, 3022), (sym_octal_int, 3022),
     (sym_hex_int, 3022), (sym__explicit_signed_real, 3022), (sym_real_value, 3022),
     (aux_sym_bool_literal_with_string_token1, 3022),
     (aux_sym_bool_literal_with_string_token2, 3020),
     (aux_sym_bool_literal_with_string_token3, 3020), (sym_s_byte_char_str, 3022),
     (sym_d_byte_char_str, 3022), (aux_sym_time_token1, 3022), (anon_sym_PLUS, 3020),
     (anon_sym_DASH, 3020), (aux_sym_ltime_token1, 3022), (aux_sym_tod_token1, 3022),
     (aux_sym_ltod_token1, 3022), (aux_sym_short_date_token1, 3022),
     (aux_sym_long_date_token1, 3022), (aux_sym_short_date_and_time_token1, 3022),
     (aux_sym_long_date_and_time_token1, 3022), (aux_sym_sign_int_type_name_token1, 3020),
     (aux_sym_sign_int_type_name_token2, 3020), (aux_sym_sign_int_type_name_token3, 3020),
     (aux_sym_sign_int_type_name_token4, 3020), (aux_sym_unsign_int_type_name_token1, 3020),
     (aux_sym_unsign_int_type_name_token2, 3020), (aux_sym_unsign_int_type_name_token3, 3020),
     (aux_sym_unsign_int_type_name_token4, 3020), (aux_sym_real_type_name_token1, 3020),
     (aux_sym_real_type_name_token2, 3020), (aux_sym_string_name_token1, 3020),
     (aux_sym_char_name_token1, 3020), (aux_sym_multibits_type_name_token1, 3020),
     (aux_sym_multibits_type_name_token2, 3020), (aux_sym_multibits_type_name_token3, 3020),
     (aux_sym_multibits_type_name_token4, 3020), (anon_sym_SEMI, 3022), (anon_sym_PERCENT, 3022),
     (anon_sym_STAR, 3020), (aux_sym_ref_value_token1, 3020), (aux_sym_ref_addr_token1, 3020),
     (anon_sym_DOT_DOT_DOT, 3022), (aux_sym_method_decl_token1, 3020), (anon_sym_SLASH, 3020),
     (anon_sym_STAR_STAR, 3022), (anon_sym_AMP, 3022), (anon_sym_LT_GT, 3022), (anon_sym_LT, 3020),
     (anon_sym_GT, 3020), (anon_sym_LT_EQ, 3022), (anon_sym_GT_EQ, 3022),
     (aux_sym_or_operator_token1, 3020), (aux_sym_xor_operator_token1, 3020),
     (aux_sym_and_operator_token1, 3020), (aux_sym_mult_token1, 3020), (aux_sym_unary_token1, 3020),
     (aux_sym__stmt_token1, 3020), (aux_sym__stmt_token2, 3020), (aux_sym__stmt_token3, 3020),
     (aux_sym_if_stmt_token1, 3020), (aux_sym_if_stmt_token3, 3020),
     (aux_sym_case_stmt_token1, 3020), (aux_sym_case_stmt_token2, 3020),
     (aux_sym_for_stmt_token1, 3020), (aux_sym_while_stmt_token1, 3020),
     (aux_sym_repeat_stmt_token1, 3020), (aux_sym_raise_stmt_token1, 3020),
     (aux_sym_try_stmt_token1, 3020), (aux_sym_try_stmt_token2, 3020),
     (aux_sym_catch_clause_token1, 3020), (aux_sym_finally_clause_token1, 3020),
     (sym_c_style_comment, 3), (sym_pascal_style_comment, 3), (sym_pragma, 3),
     (sym__minus_before_base, 3022), (sym__plus_before_base, 3022)]"

lemma ts_parse_row_1183_scan: "row_scan tokens_2_1 0 ts_parse_row_1183 = Some (Suc (Suc (Suc (Suc (Suc (Suc 0))))))"
  unfolding ts_parse_row_1183_def by simp

text \<open>Lines 185553 to 185643.\<close>

definition ts_parse_row_1184 :: parse_row where
  "ts_parse_row_1184 =
    [(sym_identifier, 3024), (anon_sym_EQ, 3026),
     (aux_sym_ERR_unexpected_this_in_path_token1, 3024),
     (aux_sym_ERR_unexpected_super_in_path_token1, 3024), (sym_line_comment, 3),
     (anon_sym_LBRACE, 3024), (anon_sym_LPAREN, 3026), (aux_sym_test_pragma_token1, 3026),
     (aux_sym_once_pragma_token1, 3026), (aux_sym_must_call_pragma_token1, 3026),
     (aux_sym_export_pragma_token1, 3026), (sym_unsigned_int, 3024),
     (sym__explicit_signed_int, 3024), (sym_binary_int, 3026), (sym_octal_int, 3026),
     (sym_hex_int, 3026), (sym__explicit_signed_real, 3026), (sym_real_value, 3026),
     (aux_sym_bool_literal_with_string_token1, 3026),
     (aux_sym_bool_literal_with_string_token2, 3024),
     (aux_sym_bool_literal_with_string_token3, 3024), (sym_s_byte_char_str, 3026),
     (sym_d_byte_char_str, 3026), (aux_sym_time_token1, 3026), (anon_sym_PLUS, 3024),
     (anon_sym_DASH, 3024), (aux_sym_ltime_token1, 3026), (aux_sym_tod_token1, 3026),
     (aux_sym_ltod_token1, 3026), (aux_sym_short_date_token1, 3026),
     (aux_sym_long_date_token1, 3026), (aux_sym_short_date_and_time_token1, 3026),
     (aux_sym_long_date_and_time_token1, 3026), (aux_sym_sign_int_type_name_token1, 3024),
     (aux_sym_sign_int_type_name_token2, 3024), (aux_sym_sign_int_type_name_token3, 3024),
     (aux_sym_sign_int_type_name_token4, 3024), (aux_sym_unsign_int_type_name_token1, 3024),
     (aux_sym_unsign_int_type_name_token2, 3024), (aux_sym_unsign_int_type_name_token3, 3024),
     (aux_sym_unsign_int_type_name_token4, 3024), (aux_sym_real_type_name_token1, 3024),
     (aux_sym_real_type_name_token2, 3024), (aux_sym_string_name_token1, 3024),
     (aux_sym_char_name_token1, 3024), (aux_sym_multibits_type_name_token1, 3024),
     (aux_sym_multibits_type_name_token2, 3024), (aux_sym_multibits_type_name_token3, 3024),
     (aux_sym_multibits_type_name_token4, 3024), (anon_sym_SEMI, 3026), (anon_sym_PERCENT, 3026),
     (anon_sym_STAR, 3024), (aux_sym_ref_value_token1, 3024), (aux_sym_ref_addr_token1, 3024),
     (anon_sym_DOT_DOT_DOT, 3026), (aux_sym_method_decl_token1, 3024), (anon_sym_SLASH, 3024),
     (anon_sym_STAR_STAR, 3026), (anon_sym_AMP, 3026), (anon_sym_LT_GT, 3026), (anon_sym_LT, 3024),
     (anon_sym_GT, 3024), (anon_sym_LT_EQ, 3026), (anon_sym_GT_EQ, 3026),
     (aux_sym_or_operator_token1, 3024), (aux_sym_xor_operator_token1, 3024),
     (aux_sym_and_operator_token1, 3024), (aux_sym_mult_token1, 3024), (aux_sym_unary_token1, 3024),
     (aux_sym__stmt_token1, 3024), (aux_sym__stmt_token2, 3024), (aux_sym__stmt_token3, 3024),
     (aux_sym_if_stmt_token1, 3024), (aux_sym_if_stmt_token3, 3024),
     (aux_sym_case_stmt_token1, 3024), (aux_sym_case_stmt_token2, 3024),
     (aux_sym_for_stmt_token1, 3024), (aux_sym_while_stmt_token1, 3024),
     (aux_sym_repeat_stmt_token1, 3024), (aux_sym_raise_stmt_token1, 3024),
     (aux_sym_try_stmt_token1, 3024), (aux_sym_try_stmt_token2, 3024),
     (aux_sym_catch_clause_token1, 3024), (aux_sym_finally_clause_token1, 3024),
     (sym_c_style_comment, 3), (sym_pascal_style_comment, 3), (sym_pragma, 3),
     (sym__minus_before_base, 3026), (sym__plus_before_base, 3026)]"

lemma ts_parse_row_1184_scan: "row_scan tokens_2_1 0 ts_parse_row_1184 = Some (Suc (Suc (Suc (Suc (Suc (Suc 0))))))"
  unfolding ts_parse_row_1184_def by simp

text \<open>Lines 185644 to 185734.\<close>

definition ts_parse_row_1185 :: parse_row where
  "ts_parse_row_1185 =
    [(sym_identifier, 3028), (anon_sym_EQ, 3030),
     (aux_sym_ERR_unexpected_this_in_path_token1, 3028),
     (aux_sym_ERR_unexpected_super_in_path_token1, 3028), (sym_line_comment, 3),
     (anon_sym_LBRACE, 3028), (anon_sym_LPAREN, 3030), (aux_sym_test_pragma_token1, 3030),
     (aux_sym_once_pragma_token1, 3030), (aux_sym_must_call_pragma_token1, 3030),
     (aux_sym_export_pragma_token1, 3030), (sym_unsigned_int, 3028),
     (sym__explicit_signed_int, 3028), (sym_binary_int, 3030), (sym_octal_int, 3030),
     (sym_hex_int, 3030), (sym__explicit_signed_real, 3030), (sym_real_value, 3030),
     (aux_sym_bool_literal_with_string_token1, 3030),
     (aux_sym_bool_literal_with_string_token2, 3028),
     (aux_sym_bool_literal_with_string_token3, 3028), (sym_s_byte_char_str, 3030),
     (sym_d_byte_char_str, 3030), (aux_sym_time_token1, 3030), (anon_sym_PLUS, 3028),
     (anon_sym_DASH, 3028), (aux_sym_ltime_token1, 3030), (aux_sym_tod_token1, 3030),
     (aux_sym_ltod_token1, 3030), (aux_sym_short_date_token1, 3030),
     (aux_sym_long_date_token1, 3030), (aux_sym_short_date_and_time_token1, 3030),
     (aux_sym_long_date_and_time_token1, 3030), (aux_sym_sign_int_type_name_token1, 3028),
     (aux_sym_sign_int_type_name_token2, 3028), (aux_sym_sign_int_type_name_token3, 3028),
     (aux_sym_sign_int_type_name_token4, 3028), (aux_sym_unsign_int_type_name_token1, 3028),
     (aux_sym_unsign_int_type_name_token2, 3028), (aux_sym_unsign_int_type_name_token3, 3028),
     (aux_sym_unsign_int_type_name_token4, 3028), (aux_sym_real_type_name_token1, 3028),
     (aux_sym_real_type_name_token2, 3028), (aux_sym_string_name_token1, 3028),
     (aux_sym_char_name_token1, 3028), (aux_sym_multibits_type_name_token1, 3028),
     (aux_sym_multibits_type_name_token2, 3028), (aux_sym_multibits_type_name_token3, 3028),
     (aux_sym_multibits_type_name_token4, 3028), (anon_sym_SEMI, 3030), (anon_sym_PERCENT, 3030),
     (anon_sym_STAR, 3028), (aux_sym_ref_value_token1, 3028), (aux_sym_ref_addr_token1, 3028),
     (anon_sym_DOT_DOT_DOT, 3030), (aux_sym_method_decl_token1, 3028), (anon_sym_SLASH, 3028),
     (anon_sym_STAR_STAR, 3030), (anon_sym_AMP, 3030), (anon_sym_LT_GT, 3030), (anon_sym_LT, 3028),
     (anon_sym_GT, 3028), (anon_sym_LT_EQ, 3030), (anon_sym_GT_EQ, 3030),
     (aux_sym_or_operator_token1, 3028), (aux_sym_xor_operator_token1, 3028),
     (aux_sym_and_operator_token1, 3028), (aux_sym_mult_token1, 3028), (aux_sym_unary_token1, 3028),
     (aux_sym__stmt_token1, 3028), (aux_sym__stmt_token2, 3028), (aux_sym__stmt_token3, 3028),
     (aux_sym_if_stmt_token1, 3028), (aux_sym_if_stmt_token3, 3028),
     (aux_sym_case_stmt_token1, 3028), (aux_sym_case_stmt_token2, 3028),
     (aux_sym_for_stmt_token1, 3028), (aux_sym_while_stmt_token1, 3028),
     (aux_sym_repeat_stmt_token1, 3028), (aux_sym_raise_stmt_token1, 3028),
     (aux_sym_try_stmt_token1, 3028), (aux_sym_try_stmt_token2, 3028),
     (aux_sym_catch_clause_token1, 3028), (aux_sym_finally_clause_token1, 3028),
     (sym_c_style_comment, 3), (sym_pascal_style_comment, 3), (sym_pragma, 3),
     (sym__minus_before_base, 3030), (sym__plus_before_base, 3030)]"

lemma ts_parse_row_1185_scan: "row_scan tokens_2_1 0 ts_parse_row_1185 = Some (Suc (Suc (Suc (Suc (Suc (Suc 0))))))"
  unfolding ts_parse_row_1185_def by simp

text \<open>Lines 185735 to 185825.\<close>

definition ts_parse_row_1186 :: parse_row where
  "ts_parse_row_1186 =
    [(sym_identifier, 3032), (anon_sym_EQ, 3034),
     (aux_sym_ERR_unexpected_this_in_path_token1, 3032),
     (aux_sym_ERR_unexpected_super_in_path_token1, 3032), (sym_line_comment, 3),
     (anon_sym_LBRACE, 3032), (anon_sym_LPAREN, 3034), (aux_sym_test_pragma_token1, 3034),
     (aux_sym_once_pragma_token1, 3034), (aux_sym_must_call_pragma_token1, 3034),
     (aux_sym_export_pragma_token1, 3034), (sym_unsigned_int, 3032),
     (sym__explicit_signed_int, 3032), (sym_binary_int, 3034), (sym_octal_int, 3034),
     (sym_hex_int, 3034), (sym__explicit_signed_real, 3034), (sym_real_value, 3034),
     (aux_sym_bool_literal_with_string_token1, 3034),
     (aux_sym_bool_literal_with_string_token2, 3032),
     (aux_sym_bool_literal_with_string_token3, 3032), (sym_s_byte_char_str, 3034),
     (sym_d_byte_char_str, 3034), (aux_sym_time_token1, 3034), (anon_sym_PLUS, 3032),
     (anon_sym_DASH, 3032), (aux_sym_ltime_token1, 3034), (aux_sym_tod_token1, 3034),
     (aux_sym_ltod_token1, 3034), (aux_sym_short_date_token1, 3034),
     (aux_sym_long_date_token1, 3034), (aux_sym_short_date_and_time_token1, 3034),
     (aux_sym_long_date_and_time_token1, 3034), (aux_sym_sign_int_type_name_token1, 3032),
     (aux_sym_sign_int_type_name_token2, 3032), (aux_sym_sign_int_type_name_token3, 3032),
     (aux_sym_sign_int_type_name_token4, 3032), (aux_sym_unsign_int_type_name_token1, 3032),
     (aux_sym_unsign_int_type_name_token2, 3032), (aux_sym_unsign_int_type_name_token3, 3032),
     (aux_sym_unsign_int_type_name_token4, 3032), (aux_sym_real_type_name_token1, 3032),
     (aux_sym_real_type_name_token2, 3032), (aux_sym_string_name_token1, 3032),
     (aux_sym_char_name_token1, 3032), (aux_sym_multibits_type_name_token1, 3032),
     (aux_sym_multibits_type_name_token2, 3032), (aux_sym_multibits_type_name_token3, 3032),
     (aux_sym_multibits_type_name_token4, 3032), (anon_sym_SEMI, 3034), (anon_sym_PERCENT, 3034),
     (anon_sym_STAR, 3032), (aux_sym_ref_value_token1, 3032), (aux_sym_ref_addr_token1, 3032),
     (anon_sym_DOT_DOT_DOT, 3034), (aux_sym_method_decl_token1, 3032), (anon_sym_SLASH, 3032),
     (anon_sym_STAR_STAR, 3034), (anon_sym_AMP, 3034), (anon_sym_LT_GT, 3034), (anon_sym_LT, 3032),
     (anon_sym_GT, 3032), (anon_sym_LT_EQ, 3034), (anon_sym_GT_EQ, 3034),
     (aux_sym_or_operator_token1, 3032), (aux_sym_xor_operator_token1, 3032),
     (aux_sym_and_operator_token1, 3032), (aux_sym_mult_token1, 3032), (aux_sym_unary_token1, 3032),
     (aux_sym__stmt_token1, 3032), (aux_sym__stmt_token2, 3032), (aux_sym__stmt_token3, 3032),
     (aux_sym_if_stmt_token1, 3032), (aux_sym_if_stmt_token3, 3032),
     (aux_sym_case_stmt_token1, 3032), (aux_sym_case_stmt_token2, 3032),
     (aux_sym_for_stmt_token1, 3032), (aux_sym_while_stmt_token1, 3032),
     (aux_sym_repeat_stmt_token1, 3032), (aux_sym_raise_stmt_token1, 3032),
     (aux_sym_try_stmt_token1, 3032), (aux_sym_try_stmt_token2, 3032),
     (aux_sym_catch_clause_token1, 3032), (aux_sym_finally_clause_token1, 3032),
     (sym_c_style_comment, 3), (sym_pascal_style_comment, 3), (sym_pragma, 3),
     (sym__minus_before_base, 3034), (sym__plus_before_base, 3034)]"

lemma ts_parse_row_1186_scan: "row_scan tokens_2_1 0 ts_parse_row_1186 = Some (Suc (Suc (Suc (Suc (Suc (Suc 0))))))"
  unfolding ts_parse_row_1186_def by simp

text \<open>Lines 185826 to 185916.\<close>

definition ts_parse_row_1187 :: parse_row where
  "ts_parse_row_1187 =
    [(sym_identifier, 3036), (anon_sym_EQ, 3038),
     (aux_sym_ERR_unexpected_this_in_path_token1, 3036),
     (aux_sym_ERR_unexpected_super_in_path_token1, 3036), (sym_line_comment, 3),
     (anon_sym_LBRACE, 3036), (anon_sym_LPAREN, 3038), (aux_sym_test_pragma_token1, 3038),
     (aux_sym_once_pragma_token1, 3038), (aux_sym_must_call_pragma_token1, 3038),
     (aux_sym_export_pragma_token1, 3038), (sym_unsigned_int, 3036),
     (sym__explicit_signed_int, 3036), (sym_binary_int, 3038), (sym_octal_int, 3038),
     (sym_hex_int, 3038), (sym__explicit_signed_real, 3038), (sym_real_value, 3038),
     (aux_sym_bool_literal_with_string_token1, 3038),
     (aux_sym_bool_literal_with_string_token2, 3036),
     (aux_sym_bool_literal_with_string_token3, 3036), (sym_s_byte_char_str, 3038),
     (sym_d_byte_char_str, 3038), (aux_sym_time_token1, 3038), (anon_sym_PLUS, 3036),
     (anon_sym_DASH, 3036), (aux_sym_ltime_token1, 3038), (aux_sym_tod_token1, 3038),
     (aux_sym_ltod_token1, 3038), (aux_sym_short_date_token1, 3038),
     (aux_sym_long_date_token1, 3038), (aux_sym_short_date_and_time_token1, 3038),
     (aux_sym_long_date_and_time_token1, 3038), (aux_sym_sign_int_type_name_token1, 3036),
     (aux_sym_sign_int_type_name_token2, 3036), (aux_sym_sign_int_type_name_token3, 3036),
     (aux_sym_sign_int_type_name_token4, 3036), (aux_sym_unsign_int_type_name_token1, 3036),
     (aux_sym_unsign_int_type_name_token2, 3036), (aux_sym_unsign_int_type_name_token3, 3036),
     (aux_sym_unsign_int_type_name_token4, 3036), (aux_sym_real_type_name_token1, 3036),
     (aux_sym_real_type_name_token2, 3036), (aux_sym_string_name_token1, 3036),
     (aux_sym_char_name_token1, 3036), (aux_sym_multibits_type_name_token1, 3036),
     (aux_sym_multibits_type_name_token2, 3036), (aux_sym_multibits_type_name_token3, 3036),
     (aux_sym_multibits_type_name_token4, 3036), (anon_sym_SEMI, 3038), (anon_sym_PERCENT, 3038),
     (anon_sym_STAR, 3036), (aux_sym_ref_value_token1, 3036), (aux_sym_ref_addr_token1, 3036),
     (anon_sym_DOT_DOT_DOT, 3038), (aux_sym_method_decl_token1, 3036), (anon_sym_SLASH, 3036),
     (anon_sym_STAR_STAR, 3038), (anon_sym_AMP, 3038), (anon_sym_LT_GT, 3038), (anon_sym_LT, 3036),
     (anon_sym_GT, 3036), (anon_sym_LT_EQ, 3038), (anon_sym_GT_EQ, 3038),
     (aux_sym_or_operator_token1, 3036), (aux_sym_xor_operator_token1, 3036),
     (aux_sym_and_operator_token1, 3036), (aux_sym_mult_token1, 3036), (aux_sym_unary_token1, 3036),
     (aux_sym__stmt_token1, 3036), (aux_sym__stmt_token2, 3036), (aux_sym__stmt_token3, 3036),
     (aux_sym_if_stmt_token1, 3036), (aux_sym_if_stmt_token3, 3036),
     (aux_sym_case_stmt_token1, 3036), (aux_sym_case_stmt_token2, 3036),
     (aux_sym_for_stmt_token1, 3036), (aux_sym_while_stmt_token1, 3036),
     (aux_sym_repeat_stmt_token1, 3036), (aux_sym_raise_stmt_token1, 3036),
     (aux_sym_try_stmt_token1, 3036), (aux_sym_try_stmt_token2, 3036),
     (aux_sym_catch_clause_token1, 3036), (aux_sym_finally_clause_token1, 3036),
     (sym_c_style_comment, 3), (sym_pascal_style_comment, 3), (sym_pragma, 3),
     (sym__minus_before_base, 3038), (sym__plus_before_base, 3038)]"

lemma ts_parse_row_1187_scan: "row_scan tokens_2_1 0 ts_parse_row_1187 = Some (Suc (Suc (Suc (Suc (Suc (Suc 0))))))"
  unfolding ts_parse_row_1187_def by simp

text \<open>Lines 185917 to 186007.\<close>

definition ts_parse_row_1188 :: parse_row where
  "ts_parse_row_1188 =
    [(sym_identifier, 3040), (anon_sym_EQ, 3042),
     (aux_sym_ERR_unexpected_this_in_path_token1, 3040),
     (aux_sym_ERR_unexpected_super_in_path_token1, 3040), (sym_line_comment, 3),
     (anon_sym_LBRACE, 3040), (anon_sym_LPAREN, 3042), (aux_sym_test_pragma_token1, 3042),
     (aux_sym_once_pragma_token1, 3042), (aux_sym_must_call_pragma_token1, 3042),
     (aux_sym_export_pragma_token1, 3042), (sym_unsigned_int, 3040),
     (sym__explicit_signed_int, 3040), (sym_binary_int, 3042), (sym_octal_int, 3042),
     (sym_hex_int, 3042), (sym__explicit_signed_real, 3042), (sym_real_value, 3042),
     (aux_sym_bool_literal_with_string_token1, 3042),
     (aux_sym_bool_literal_with_string_token2, 3040),
     (aux_sym_bool_literal_with_string_token3, 3040), (sym_s_byte_char_str, 3042),
     (sym_d_byte_char_str, 3042), (aux_sym_time_token1, 3042), (anon_sym_PLUS, 3040),
     (anon_sym_DASH, 3040), (aux_sym_ltime_token1, 3042), (aux_sym_tod_token1, 3042),
     (aux_sym_ltod_token1, 3042), (aux_sym_short_date_token1, 3042),
     (aux_sym_long_date_token1, 3042), (aux_sym_short_date_and_time_token1, 3042),
     (aux_sym_long_date_and_time_token1, 3042), (aux_sym_sign_int_type_name_token1, 3040),
     (aux_sym_sign_int_type_name_token2, 3040), (aux_sym_sign_int_type_name_token3, 3040),
     (aux_sym_sign_int_type_name_token4, 3040), (aux_sym_unsign_int_type_name_token1, 3040),
     (aux_sym_unsign_int_type_name_token2, 3040), (aux_sym_unsign_int_type_name_token3, 3040),
     (aux_sym_unsign_int_type_name_token4, 3040), (aux_sym_real_type_name_token1, 3040),
     (aux_sym_real_type_name_token2, 3040), (aux_sym_string_name_token1, 3040),
     (aux_sym_char_name_token1, 3040), (aux_sym_multibits_type_name_token1, 3040),
     (aux_sym_multibits_type_name_token2, 3040), (aux_sym_multibits_type_name_token3, 3040),
     (aux_sym_multibits_type_name_token4, 3040), (anon_sym_SEMI, 3042), (anon_sym_PERCENT, 3042),
     (anon_sym_STAR, 3040), (aux_sym_ref_value_token1, 3040), (aux_sym_ref_addr_token1, 3040),
     (anon_sym_DOT_DOT_DOT, 3042), (aux_sym_method_decl_token1, 3040), (anon_sym_SLASH, 3040),
     (anon_sym_STAR_STAR, 3042), (anon_sym_AMP, 3042), (anon_sym_LT_GT, 3042), (anon_sym_LT, 3040),
     (anon_sym_GT, 3040), (anon_sym_LT_EQ, 3042), (anon_sym_GT_EQ, 3042),
     (aux_sym_or_operator_token1, 3040), (aux_sym_xor_operator_token1, 3040),
     (aux_sym_and_operator_token1, 3040), (aux_sym_mult_token1, 3040), (aux_sym_unary_token1, 3040),
     (aux_sym__stmt_token1, 3040), (aux_sym__stmt_token2, 3040), (aux_sym__stmt_token3, 3040),
     (aux_sym_if_stmt_token1, 3040), (aux_sym_if_stmt_token3, 3040),
     (aux_sym_case_stmt_token1, 3040), (aux_sym_case_stmt_token2, 3040),
     (aux_sym_for_stmt_token1, 3040), (aux_sym_while_stmt_token1, 3040),
     (aux_sym_repeat_stmt_token1, 3040), (aux_sym_raise_stmt_token1, 3040),
     (aux_sym_try_stmt_token1, 3040), (aux_sym_try_stmt_token2, 3040),
     (aux_sym_catch_clause_token1, 3040), (aux_sym_finally_clause_token1, 3040),
     (sym_c_style_comment, 3), (sym_pascal_style_comment, 3), (sym_pragma, 3),
     (sym__minus_before_base, 3042), (sym__plus_before_base, 3042)]"

lemma ts_parse_row_1188_scan: "row_scan tokens_2_1 0 ts_parse_row_1188 = Some (Suc (Suc (Suc (Suc (Suc (Suc 0))))))"
  unfolding ts_parse_row_1188_def by simp

text \<open>Lines 186008 to 186098.\<close>

definition ts_parse_row_1189 :: parse_row where
  "ts_parse_row_1189 =
    [(sym_identifier, 3044), (anon_sym_EQ, 3046),
     (aux_sym_ERR_unexpected_this_in_path_token1, 3044),
     (aux_sym_ERR_unexpected_super_in_path_token1, 3044), (sym_line_comment, 3),
     (anon_sym_LBRACE, 3044), (anon_sym_LPAREN, 3046), (aux_sym_test_pragma_token1, 3046),
     (aux_sym_once_pragma_token1, 3046), (aux_sym_must_call_pragma_token1, 3046),
     (aux_sym_export_pragma_token1, 3046), (sym_unsigned_int, 3044),
     (sym__explicit_signed_int, 3044), (sym_binary_int, 3046), (sym_octal_int, 3046),
     (sym_hex_int, 3046), (sym__explicit_signed_real, 3046), (sym_real_value, 3046),
     (aux_sym_bool_literal_with_string_token1, 3046),
     (aux_sym_bool_literal_with_string_token2, 3044),
     (aux_sym_bool_literal_with_string_token3, 3044), (sym_s_byte_char_str, 3046),
     (sym_d_byte_char_str, 3046), (aux_sym_time_token1, 3046), (anon_sym_PLUS, 3044),
     (anon_sym_DASH, 3044), (aux_sym_ltime_token1, 3046), (aux_sym_tod_token1, 3046),
     (aux_sym_ltod_token1, 3046), (aux_sym_short_date_token1, 3046),
     (aux_sym_long_date_token1, 3046), (aux_sym_short_date_and_time_token1, 3046),
     (aux_sym_long_date_and_time_token1, 3046), (aux_sym_sign_int_type_name_token1, 3044),
     (aux_sym_sign_int_type_name_token2, 3044), (aux_sym_sign_int_type_name_token3, 3044),
     (aux_sym_sign_int_type_name_token4, 3044), (aux_sym_unsign_int_type_name_token1, 3044),
     (aux_sym_unsign_int_type_name_token2, 3044), (aux_sym_unsign_int_type_name_token3, 3044),
     (aux_sym_unsign_int_type_name_token4, 3044), (aux_sym_real_type_name_token1, 3044),
     (aux_sym_real_type_name_token2, 3044), (aux_sym_string_name_token1, 3044),
     (aux_sym_char_name_token1, 3044), (aux_sym_multibits_type_name_token1, 3044),
     (aux_sym_multibits_type_name_token2, 3044), (aux_sym_multibits_type_name_token3, 3044),
     (aux_sym_multibits_type_name_token4, 3044), (anon_sym_SEMI, 3046), (anon_sym_PERCENT, 3046),
     (anon_sym_STAR, 3044), (aux_sym_ref_value_token1, 3044), (aux_sym_ref_addr_token1, 3044),
     (anon_sym_DOT_DOT_DOT, 3046), (aux_sym_method_decl_token1, 3044), (anon_sym_SLASH, 3044),
     (anon_sym_STAR_STAR, 3046), (anon_sym_AMP, 3046), (anon_sym_LT_GT, 3046), (anon_sym_LT, 3044),
     (anon_sym_GT, 3044), (anon_sym_LT_EQ, 3046), (anon_sym_GT_EQ, 3046),
     (aux_sym_or_operator_token1, 3044), (aux_sym_xor_operator_token1, 3044),
     (aux_sym_and_operator_token1, 3044), (aux_sym_mult_token1, 3044), (aux_sym_unary_token1, 3044),
     (aux_sym__stmt_token1, 3044), (aux_sym__stmt_token2, 3044), (aux_sym__stmt_token3, 3044),
     (aux_sym_if_stmt_token1, 3044), (aux_sym_if_stmt_token3, 3044),
     (aux_sym_case_stmt_token1, 3044), (aux_sym_case_stmt_token2, 3044),
     (aux_sym_for_stmt_token1, 3044), (aux_sym_while_stmt_token1, 3044),
     (aux_sym_repeat_stmt_token1, 3044), (aux_sym_raise_stmt_token1, 3044),
     (aux_sym_try_stmt_token1, 3044), (aux_sym_try_stmt_token2, 3044),
     (aux_sym_catch_clause_token1, 3044), (aux_sym_finally_clause_token1, 3044),
     (sym_c_style_comment, 3), (sym_pascal_style_comment, 3), (sym_pragma, 3),
     (sym__minus_before_base, 3046), (sym__plus_before_base, 3046)]"

lemma ts_parse_row_1189_scan: "row_scan tokens_2_1 0 ts_parse_row_1189 = Some (Suc (Suc (Suc (Suc (Suc (Suc 0))))))"
  unfolding ts_parse_row_1189_def by simp

text \<open>Lines 186099 to 186189.\<close>

definition ts_parse_row_1190 :: parse_row where
  "ts_parse_row_1190 =
    [(sym_identifier, 3048), (anon_sym_EQ, 3050),
     (aux_sym_ERR_unexpected_this_in_path_token1, 3048),
     (aux_sym_ERR_unexpected_super_in_path_token1, 3048), (sym_line_comment, 3),
     (anon_sym_LBRACE, 3048), (anon_sym_LPAREN, 3050), (aux_sym_test_pragma_token1, 3050),
     (aux_sym_once_pragma_token1, 3050), (aux_sym_must_call_pragma_token1, 3050),
     (aux_sym_export_pragma_token1, 3050), (sym_unsigned_int, 3048),
     (sym__explicit_signed_int, 3048), (sym_binary_int, 3050), (sym_octal_int, 3050),
     (sym_hex_int, 3050), (sym__explicit_signed_real, 3050), (sym_real_value, 3050),
     (aux_sym_bool_literal_with_string_token1, 3050),
     (aux_sym_bool_literal_with_string_token2, 3048),
     (aux_sym_bool_literal_with_string_token3, 3048), (sym_s_byte_char_str, 3050),
     (sym_d_byte_char_str, 3050), (aux_sym_time_token1, 3050), (anon_sym_PLUS, 3048),
     (anon_sym_DASH, 3048), (aux_sym_ltime_token1, 3050), (aux_sym_tod_token1, 3050),
     (aux_sym_ltod_token1, 3050), (aux_sym_short_date_token1, 3050),
     (aux_sym_long_date_token1, 3050), (aux_sym_short_date_and_time_token1, 3050),
     (aux_sym_long_date_and_time_token1, 3050), (aux_sym_sign_int_type_name_token1, 3048),
     (aux_sym_sign_int_type_name_token2, 3048), (aux_sym_sign_int_type_name_token3, 3048),
     (aux_sym_sign_int_type_name_token4, 3048), (aux_sym_unsign_int_type_name_token1, 3048),
     (aux_sym_unsign_int_type_name_token2, 3048), (aux_sym_unsign_int_type_name_token3, 3048),
     (aux_sym_unsign_int_type_name_token4, 3048), (aux_sym_real_type_name_token1, 3048),
     (aux_sym_real_type_name_token2, 3048), (aux_sym_string_name_token1, 3048),
     (aux_sym_char_name_token1, 3048), (aux_sym_multibits_type_name_token1, 3048),
     (aux_sym_multibits_type_name_token2, 3048), (aux_sym_multibits_type_name_token3, 3048),
     (aux_sym_multibits_type_name_token4, 3048), (anon_sym_SEMI, 3050), (anon_sym_PERCENT, 3050),
     (anon_sym_STAR, 3048), (aux_sym_ref_value_token1, 3048), (aux_sym_ref_addr_token1, 3048),
     (anon_sym_DOT_DOT_DOT, 3050), (aux_sym_method_decl_token1, 3048), (anon_sym_SLASH, 3048),
     (anon_sym_STAR_STAR, 3050), (anon_sym_AMP, 3050), (anon_sym_LT_GT, 3050), (anon_sym_LT, 3048),
     (anon_sym_GT, 3048), (anon_sym_LT_EQ, 3050), (anon_sym_GT_EQ, 3050),
     (aux_sym_or_operator_token1, 3048), (aux_sym_xor_operator_token1, 3048),
     (aux_sym_and_operator_token1, 3048), (aux_sym_mult_token1, 3048), (aux_sym_unary_token1, 3048),
     (aux_sym__stmt_token1, 3048), (aux_sym__stmt_token2, 3048), (aux_sym__stmt_token3, 3048),
     (aux_sym_if_stmt_token1, 3048), (aux_sym_if_stmt_token3, 3048),
     (aux_sym_case_stmt_token1, 3048), (aux_sym_case_stmt_token2, 3048),
     (aux_sym_for_stmt_token1, 3048), (aux_sym_while_stmt_token1, 3048),
     (aux_sym_repeat_stmt_token1, 3048), (aux_sym_raise_stmt_token1, 3048),
     (aux_sym_try_stmt_token1, 3048), (aux_sym_try_stmt_token2, 3048),
     (aux_sym_catch_clause_token1, 3048), (aux_sym_finally_clause_token1, 3048),
     (sym_c_style_comment, 3), (sym_pascal_style_comment, 3), (sym_pragma, 3),
     (sym__minus_before_base, 3050), (sym__plus_before_base, 3050)]"

lemma ts_parse_row_1190_scan: "row_scan tokens_2_1 0 ts_parse_row_1190 = Some (Suc (Suc (Suc (Suc (Suc (Suc 0))))))"
  unfolding ts_parse_row_1190_def by simp

text \<open>Lines 186190 to 186280.\<close>

definition ts_parse_row_1191 :: parse_row where
  "ts_parse_row_1191 =
    [(sym_identifier, 3052), (anon_sym_EQ, 3054),
     (aux_sym_ERR_unexpected_this_in_path_token1, 3052),
     (aux_sym_ERR_unexpected_super_in_path_token1, 3052), (sym_line_comment, 3),
     (anon_sym_LBRACE, 3052), (anon_sym_LPAREN, 3054), (aux_sym_test_pragma_token1, 3054),
     (aux_sym_once_pragma_token1, 3054), (aux_sym_must_call_pragma_token1, 3054),
     (aux_sym_export_pragma_token1, 3054), (sym_unsigned_int, 3052),
     (sym__explicit_signed_int, 3052), (sym_binary_int, 3054), (sym_octal_int, 3054),
     (sym_hex_int, 3054), (sym__explicit_signed_real, 3054), (sym_real_value, 3054),
     (aux_sym_bool_literal_with_string_token1, 3054),
     (aux_sym_bool_literal_with_string_token2, 3052),
     (aux_sym_bool_literal_with_string_token3, 3052), (sym_s_byte_char_str, 3054),
     (sym_d_byte_char_str, 3054), (aux_sym_time_token1, 3054), (anon_sym_PLUS, 3052),
     (anon_sym_DASH, 3052), (aux_sym_ltime_token1, 3054), (aux_sym_tod_token1, 3054),
     (aux_sym_ltod_token1, 3054), (aux_sym_short_date_token1, 3054),
     (aux_sym_long_date_token1, 3054), (aux_sym_short_date_and_time_token1, 3054),
     (aux_sym_long_date_and_time_token1, 3054), (aux_sym_sign_int_type_name_token1, 3052),
     (aux_sym_sign_int_type_name_token2, 3052), (aux_sym_sign_int_type_name_token3, 3052),
     (aux_sym_sign_int_type_name_token4, 3052), (aux_sym_unsign_int_type_name_token1, 3052),
     (aux_sym_unsign_int_type_name_token2, 3052), (aux_sym_unsign_int_type_name_token3, 3052),
     (aux_sym_unsign_int_type_name_token4, 3052), (aux_sym_real_type_name_token1, 3052),
     (aux_sym_real_type_name_token2, 3052), (aux_sym_string_name_token1, 3052),
     (aux_sym_char_name_token1, 3052), (aux_sym_multibits_type_name_token1, 3052),
     (aux_sym_multibits_type_name_token2, 3052), (aux_sym_multibits_type_name_token3, 3052),
     (aux_sym_multibits_type_name_token4, 3052), (anon_sym_SEMI, 3054), (anon_sym_PERCENT, 3054),
     (anon_sym_STAR, 3052), (aux_sym_ref_value_token1, 3052), (aux_sym_ref_addr_token1, 3052),
     (anon_sym_DOT_DOT_DOT, 3054), (aux_sym_method_decl_token1, 3052), (anon_sym_SLASH, 3052),
     (anon_sym_STAR_STAR, 3054), (anon_sym_AMP, 3054), (anon_sym_LT_GT, 3054), (anon_sym_LT, 3052),
     (anon_sym_GT, 3052), (anon_sym_LT_EQ, 3054), (anon_sym_GT_EQ, 3054),
     (aux_sym_or_operator_token1, 3052), (aux_sym_xor_operator_token1, 3052),
     (aux_sym_and_operator_token1, 3052), (aux_sym_mult_token1, 3052), (aux_sym_unary_token1, 3052),
     (aux_sym__stmt_token1, 3052), (aux_sym__stmt_token2, 3052), (aux_sym__stmt_token3, 3052),
     (aux_sym_if_stmt_token1, 3052), (aux_sym_if_stmt_token3, 3052),
     (aux_sym_case_stmt_token1, 3052), (aux_sym_case_stmt_token2, 3052),
     (aux_sym_for_stmt_token1, 3052), (aux_sym_while_stmt_token1, 3052),
     (aux_sym_repeat_stmt_token1, 3052), (aux_sym_raise_stmt_token1, 3052),
     (aux_sym_try_stmt_token1, 3052), (aux_sym_try_stmt_token2, 3052),
     (aux_sym_catch_clause_token1, 3052), (aux_sym_finally_clause_token1, 3052),
     (sym_c_style_comment, 3), (sym_pascal_style_comment, 3), (sym_pragma, 3),
     (sym__minus_before_base, 3054), (sym__plus_before_base, 3054)]"

lemma ts_parse_row_1191_scan: "row_scan tokens_2_1 0 ts_parse_row_1191 = Some (Suc (Suc (Suc (Suc (Suc (Suc 0))))))"
  unfolding ts_parse_row_1191_def by simp

text \<open>Lines 186281 to 186371.\<close>

definition ts_parse_row_1192 :: parse_row where
  "ts_parse_row_1192 =
    [(sym_identifier, 3056), (anon_sym_EQ, 3058),
     (aux_sym_ERR_unexpected_this_in_path_token1, 3056),
     (aux_sym_ERR_unexpected_super_in_path_token1, 3056), (sym_line_comment, 3),
     (anon_sym_LBRACE, 3056), (anon_sym_LPAREN, 3058), (aux_sym_test_pragma_token1, 3058),
     (aux_sym_once_pragma_token1, 3058), (aux_sym_must_call_pragma_token1, 3058),
     (aux_sym_export_pragma_token1, 3058), (sym_unsigned_int, 3056),
     (sym__explicit_signed_int, 3056), (sym_binary_int, 3058), (sym_octal_int, 3058),
     (sym_hex_int, 3058), (sym__explicit_signed_real, 3058), (sym_real_value, 3058),
     (aux_sym_bool_literal_with_string_token1, 3058),
     (aux_sym_bool_literal_with_string_token2, 3056),
     (aux_sym_bool_literal_with_string_token3, 3056), (sym_s_byte_char_str, 3058),
     (sym_d_byte_char_str, 3058), (aux_sym_time_token1, 3058), (anon_sym_PLUS, 3056),
     (anon_sym_DASH, 3056), (aux_sym_ltime_token1, 3058), (aux_sym_tod_token1, 3058),
     (aux_sym_ltod_token1, 3058), (aux_sym_short_date_token1, 3058),
     (aux_sym_long_date_token1, 3058), (aux_sym_short_date_and_time_token1, 3058),
     (aux_sym_long_date_and_time_token1, 3058), (aux_sym_sign_int_type_name_token1, 3056),
     (aux_sym_sign_int_type_name_token2, 3056), (aux_sym_sign_int_type_name_token3, 3056),
     (aux_sym_sign_int_type_name_token4, 3056), (aux_sym_unsign_int_type_name_token1, 3056),
     (aux_sym_unsign_int_type_name_token2, 3056), (aux_sym_unsign_int_type_name_token3, 3056),
     (aux_sym_unsign_int_type_name_token4, 3056), (aux_sym_real_type_name_token1, 3056),
     (aux_sym_real_type_name_token2, 3056), (aux_sym_string_name_token1, 3056),
     (aux_sym_char_name_token1, 3056), (aux_sym_multibits_type_name_token1, 3056),
     (aux_sym_multibits_type_name_token2, 3056), (aux_sym_multibits_type_name_token3, 3056),
     (aux_sym_multibits_type_name_token4, 3056), (anon_sym_SEMI, 3058), (anon_sym_PERCENT, 3058),
     (anon_sym_STAR, 3056), (aux_sym_ref_value_token1, 3056), (aux_sym_ref_addr_token1, 3056),
     (anon_sym_DOT_DOT_DOT, 3058), (aux_sym_method_decl_token1, 3056), (anon_sym_SLASH, 3056),
     (anon_sym_STAR_STAR, 3058), (anon_sym_AMP, 3058), (anon_sym_LT_GT, 3058), (anon_sym_LT, 3056),
     (anon_sym_GT, 3056), (anon_sym_LT_EQ, 3058), (anon_sym_GT_EQ, 3058),
     (aux_sym_or_operator_token1, 3056), (aux_sym_xor_operator_token1, 3056),
     (aux_sym_and_operator_token1, 3056), (aux_sym_mult_token1, 3056), (aux_sym_unary_token1, 3056),
     (aux_sym__stmt_token1, 3056), (aux_sym__stmt_token2, 3056), (aux_sym__stmt_token3, 3056),
     (aux_sym_if_stmt_token1, 3056), (aux_sym_if_stmt_token3, 3056),
     (aux_sym_case_stmt_token1, 3056), (aux_sym_case_stmt_token2, 3056),
     (aux_sym_for_stmt_token1, 3056), (aux_sym_while_stmt_token1, 3056),
     (aux_sym_repeat_stmt_token1, 3056), (aux_sym_raise_stmt_token1, 3056),
     (aux_sym_try_stmt_token1, 3056), (aux_sym_try_stmt_token2, 3056),
     (aux_sym_catch_clause_token1, 3056), (aux_sym_finally_clause_token1, 3056),
     (sym_c_style_comment, 3), (sym_pascal_style_comment, 3), (sym_pragma, 3),
     (sym__minus_before_base, 3058), (sym__plus_before_base, 3058)]"

lemma ts_parse_row_1192_scan: "row_scan tokens_2_1 0 ts_parse_row_1192 = Some (Suc (Suc (Suc (Suc (Suc (Suc 0))))))"
  unfolding ts_parse_row_1192_def by simp

text \<open>Lines 186372 to 186462.\<close>

definition ts_parse_row_1193 :: parse_row where
  "ts_parse_row_1193 =
    [(sym_identifier, 3060), (anon_sym_EQ, 3062),
     (aux_sym_ERR_unexpected_this_in_path_token1, 3060),
     (aux_sym_ERR_unexpected_super_in_path_token1, 3060), (sym_line_comment, 3),
     (anon_sym_LBRACE, 3060), (anon_sym_LPAREN, 3062), (aux_sym_test_pragma_token1, 3062),
     (aux_sym_once_pragma_token1, 3062), (aux_sym_must_call_pragma_token1, 3062),
     (aux_sym_export_pragma_token1, 3062), (sym_unsigned_int, 3060),
     (sym__explicit_signed_int, 3060), (sym_binary_int, 3062), (sym_octal_int, 3062),
     (sym_hex_int, 3062), (sym__explicit_signed_real, 3062), (sym_real_value, 3062),
     (aux_sym_bool_literal_with_string_token1, 3062),
     (aux_sym_bool_literal_with_string_token2, 3060),
     (aux_sym_bool_literal_with_string_token3, 3060), (sym_s_byte_char_str, 3062),
     (sym_d_byte_char_str, 3062), (aux_sym_time_token1, 3062), (anon_sym_PLUS, 3060),
     (anon_sym_DASH, 3060), (aux_sym_ltime_token1, 3062), (aux_sym_tod_token1, 3062),
     (aux_sym_ltod_token1, 3062), (aux_sym_short_date_token1, 3062),
     (aux_sym_long_date_token1, 3062), (aux_sym_short_date_and_time_token1, 3062),
     (aux_sym_long_date_and_time_token1, 3062), (aux_sym_sign_int_type_name_token1, 3060),
     (aux_sym_sign_int_type_name_token2, 3060), (aux_sym_sign_int_type_name_token3, 3060),
     (aux_sym_sign_int_type_name_token4, 3060), (aux_sym_unsign_int_type_name_token1, 3060),
     (aux_sym_unsign_int_type_name_token2, 3060), (aux_sym_unsign_int_type_name_token3, 3060),
     (aux_sym_unsign_int_type_name_token4, 3060), (aux_sym_real_type_name_token1, 3060),
     (aux_sym_real_type_name_token2, 3060), (aux_sym_string_name_token1, 3060),
     (aux_sym_char_name_token1, 3060), (aux_sym_multibits_type_name_token1, 3060),
     (aux_sym_multibits_type_name_token2, 3060), (aux_sym_multibits_type_name_token3, 3060),
     (aux_sym_multibits_type_name_token4, 3060), (anon_sym_SEMI, 3062), (anon_sym_PERCENT, 3062),
     (anon_sym_STAR, 3060), (aux_sym_ref_value_token1, 3060), (aux_sym_ref_addr_token1, 3060),
     (anon_sym_DOT_DOT_DOT, 3062), (aux_sym_method_decl_token1, 3060), (anon_sym_SLASH, 3060),
     (anon_sym_STAR_STAR, 3062), (anon_sym_AMP, 3062), (anon_sym_LT_GT, 3062), (anon_sym_LT, 3060),
     (anon_sym_GT, 3060), (anon_sym_LT_EQ, 3062), (anon_sym_GT_EQ, 3062),
     (aux_sym_or_operator_token1, 3060), (aux_sym_xor_operator_token1, 3060),
     (aux_sym_and_operator_token1, 3060), (aux_sym_mult_token1, 3060), (aux_sym_unary_token1, 3060),
     (aux_sym__stmt_token1, 3060), (aux_sym__stmt_token2, 3060), (aux_sym__stmt_token3, 3060),
     (aux_sym_if_stmt_token1, 3060), (aux_sym_if_stmt_token3, 3060),
     (aux_sym_case_stmt_token1, 3060), (aux_sym_case_stmt_token2, 3060),
     (aux_sym_for_stmt_token1, 3060), (aux_sym_while_stmt_token1, 3060),
     (aux_sym_repeat_stmt_token1, 3060), (aux_sym_raise_stmt_token1, 3060),
     (aux_sym_try_stmt_token1, 3060), (aux_sym_try_stmt_token2, 3060),
     (aux_sym_catch_clause_token1, 3060), (aux_sym_finally_clause_token1, 3060),
     (sym_c_style_comment, 3), (sym_pascal_style_comment, 3), (sym_pragma, 3),
     (sym__minus_before_base, 3062), (sym__plus_before_base, 3062)]"

lemma ts_parse_row_1193_scan: "row_scan tokens_2_1 0 ts_parse_row_1193 = Some (Suc (Suc (Suc (Suc (Suc (Suc 0))))))"
  unfolding ts_parse_row_1193_def by simp

text \<open>Lines 186463 to 186553.\<close>

definition ts_parse_row_1194 :: parse_row where
  "ts_parse_row_1194 =
    [(sym_identifier, 3064), (anon_sym_EQ, 3066),
     (aux_sym_ERR_unexpected_this_in_path_token1, 3064),
     (aux_sym_ERR_unexpected_super_in_path_token1, 3064), (sym_line_comment, 3),
     (anon_sym_LBRACE, 3064), (anon_sym_LPAREN, 3066), (aux_sym_test_pragma_token1, 3066),
     (aux_sym_once_pragma_token1, 3066), (aux_sym_must_call_pragma_token1, 3066),
     (aux_sym_export_pragma_token1, 3066), (sym_unsigned_int, 3064),
     (sym__explicit_signed_int, 3064), (sym_binary_int, 3066), (sym_octal_int, 3066),
     (sym_hex_int, 3066), (sym__explicit_signed_real, 3066), (sym_real_value, 3066),
     (aux_sym_bool_literal_with_string_token1, 3066),
     (aux_sym_bool_literal_with_string_token2, 3064),
     (aux_sym_bool_literal_with_string_token3, 3064), (sym_s_byte_char_str, 3066),
     (sym_d_byte_char_str, 3066), (aux_sym_time_token1, 3066), (anon_sym_PLUS, 3064),
     (anon_sym_DASH, 3064), (aux_sym_ltime_token1, 3066), (aux_sym_tod_token1, 3066),
     (aux_sym_ltod_token1, 3066), (aux_sym_short_date_token1, 3066),
     (aux_sym_long_date_token1, 3066), (aux_sym_short_date_and_time_token1, 3066),
     (aux_sym_long_date_and_time_token1, 3066), (aux_sym_sign_int_type_name_token1, 3064),
     (aux_sym_sign_int_type_name_token2, 3064), (aux_sym_sign_int_type_name_token3, 3064),
     (aux_sym_sign_int_type_name_token4, 3064), (aux_sym_unsign_int_type_name_token1, 3064),
     (aux_sym_unsign_int_type_name_token2, 3064), (aux_sym_unsign_int_type_name_token3, 3064),
     (aux_sym_unsign_int_type_name_token4, 3064), (aux_sym_real_type_name_token1, 3064),
     (aux_sym_real_type_name_token2, 3064), (aux_sym_string_name_token1, 3064),
     (aux_sym_char_name_token1, 3064), (aux_sym_multibits_type_name_token1, 3064),
     (aux_sym_multibits_type_name_token2, 3064), (aux_sym_multibits_type_name_token3, 3064),
     (aux_sym_multibits_type_name_token4, 3064), (anon_sym_SEMI, 3066), (anon_sym_PERCENT, 3066),
     (anon_sym_STAR, 3064), (aux_sym_ref_value_token1, 3064), (aux_sym_ref_addr_token1, 3064),
     (anon_sym_DOT_DOT_DOT, 3066), (aux_sym_method_decl_token1, 3064), (anon_sym_SLASH, 3064),
     (anon_sym_STAR_STAR, 3066), (anon_sym_AMP, 3066), (anon_sym_LT_GT, 3066), (anon_sym_LT, 3064),
     (anon_sym_GT, 3064), (anon_sym_LT_EQ, 3066), (anon_sym_GT_EQ, 3066),
     (aux_sym_or_operator_token1, 3064), (aux_sym_xor_operator_token1, 3064),
     (aux_sym_and_operator_token1, 3064), (aux_sym_mult_token1, 3064), (aux_sym_unary_token1, 3064),
     (aux_sym__stmt_token1, 3064), (aux_sym__stmt_token2, 3064), (aux_sym__stmt_token3, 3064),
     (aux_sym_if_stmt_token1, 3064), (aux_sym_if_stmt_token3, 3064),
     (aux_sym_case_stmt_token1, 3064), (aux_sym_case_stmt_token2, 3064),
     (aux_sym_for_stmt_token1, 3064), (aux_sym_while_stmt_token1, 3064),
     (aux_sym_repeat_stmt_token1, 3064), (aux_sym_raise_stmt_token1, 3064),
     (aux_sym_try_stmt_token1, 3064), (aux_sym_try_stmt_token2, 3064),
     (aux_sym_catch_clause_token1, 3064), (aux_sym_finally_clause_token1, 3064),
     (sym_c_style_comment, 3), (sym_pascal_style_comment, 3), (sym_pragma, 3),
     (sym__minus_before_base, 3066), (sym__plus_before_base, 3066)]"

lemma ts_parse_row_1194_scan: "row_scan tokens_2_1 0 ts_parse_row_1194 = Some (Suc (Suc (Suc (Suc (Suc (Suc 0))))))"
  unfolding ts_parse_row_1194_def by simp

text \<open>Lines 186554 to 186644.\<close>

definition ts_parse_row_1195 :: parse_row where
  "ts_parse_row_1195 =
    [(sym_identifier, 3068), (anon_sym_EQ, 3070),
     (aux_sym_ERR_unexpected_this_in_path_token1, 3068),
     (aux_sym_ERR_unexpected_super_in_path_token1, 3068), (sym_line_comment, 3),
     (anon_sym_LBRACE, 3068), (anon_sym_LPAREN, 3070), (aux_sym_test_pragma_token1, 3070),
     (aux_sym_once_pragma_token1, 3070), (aux_sym_must_call_pragma_token1, 3070),
     (aux_sym_export_pragma_token1, 3070), (sym_unsigned_int, 3068),
     (sym__explicit_signed_int, 3068), (sym_binary_int, 3070), (sym_octal_int, 3070),
     (sym_hex_int, 3070), (sym__explicit_signed_real, 3070), (sym_real_value, 3070),
     (aux_sym_bool_literal_with_string_token1, 3070),
     (aux_sym_bool_literal_with_string_token2, 3068),
     (aux_sym_bool_literal_with_string_token3, 3068), (sym_s_byte_char_str, 3070),
     (sym_d_byte_char_str, 3070), (aux_sym_time_token1, 3070), (anon_sym_PLUS, 3068),
     (anon_sym_DASH, 3068), (aux_sym_ltime_token1, 3070), (aux_sym_tod_token1, 3070),
     (aux_sym_ltod_token1, 3070), (aux_sym_short_date_token1, 3070),
     (aux_sym_long_date_token1, 3070), (aux_sym_short_date_and_time_token1, 3070),
     (aux_sym_long_date_and_time_token1, 3070), (aux_sym_sign_int_type_name_token1, 3068),
     (aux_sym_sign_int_type_name_token2, 3068), (aux_sym_sign_int_type_name_token3, 3068),
     (aux_sym_sign_int_type_name_token4, 3068), (aux_sym_unsign_int_type_name_token1, 3068),
     (aux_sym_unsign_int_type_name_token2, 3068), (aux_sym_unsign_int_type_name_token3, 3068),
     (aux_sym_unsign_int_type_name_token4, 3068), (aux_sym_real_type_name_token1, 3068),
     (aux_sym_real_type_name_token2, 3068), (aux_sym_string_name_token1, 3068),
     (aux_sym_char_name_token1, 3068), (aux_sym_multibits_type_name_token1, 3068),
     (aux_sym_multibits_type_name_token2, 3068), (aux_sym_multibits_type_name_token3, 3068),
     (aux_sym_multibits_type_name_token4, 3068), (anon_sym_SEMI, 3070), (anon_sym_PERCENT, 3070),
     (anon_sym_STAR, 3068), (aux_sym_ref_value_token1, 3068), (aux_sym_ref_addr_token1, 3068),
     (anon_sym_DOT_DOT_DOT, 3070), (aux_sym_method_decl_token1, 3068), (anon_sym_SLASH, 3068),
     (anon_sym_STAR_STAR, 3070), (anon_sym_AMP, 3070), (anon_sym_LT_GT, 3070), (anon_sym_LT, 3068),
     (anon_sym_GT, 3068), (anon_sym_LT_EQ, 3070), (anon_sym_GT_EQ, 3070),
     (aux_sym_or_operator_token1, 3068), (aux_sym_xor_operator_token1, 3068),
     (aux_sym_and_operator_token1, 3068), (aux_sym_mult_token1, 3068), (aux_sym_unary_token1, 3068),
     (aux_sym__stmt_token1, 3068), (aux_sym__stmt_token2, 3068), (aux_sym__stmt_token3, 3068),
     (aux_sym_if_stmt_token1, 3068), (aux_sym_if_stmt_token3, 3068),
     (aux_sym_case_stmt_token1, 3068), (aux_sym_case_stmt_token2, 3068),
     (aux_sym_for_stmt_token1, 3068), (aux_sym_while_stmt_token1, 3068),
     (aux_sym_repeat_stmt_token1, 3068), (aux_sym_raise_stmt_token1, 3068),
     (aux_sym_try_stmt_token1, 3068), (aux_sym_try_stmt_token2, 3068),
     (aux_sym_catch_clause_token1, 3068), (aux_sym_finally_clause_token1, 3068),
     (sym_c_style_comment, 3), (sym_pascal_style_comment, 3), (sym_pragma, 3),
     (sym__minus_before_base, 3070), (sym__plus_before_base, 3070)]"

lemma ts_parse_row_1195_scan: "row_scan tokens_2_1 0 ts_parse_row_1195 = Some (Suc (Suc (Suc (Suc (Suc (Suc 0))))))"
  unfolding ts_parse_row_1195_def by simp

text \<open>Lines 186645 to 186735.\<close>

definition ts_parse_row_1196 :: parse_row where
  "ts_parse_row_1196 =
    [(sym_identifier, 3072), (anon_sym_EQ, 3074),
     (aux_sym_ERR_unexpected_this_in_path_token1, 3072),
     (aux_sym_ERR_unexpected_super_in_path_token1, 3072), (sym_line_comment, 3),
     (anon_sym_LBRACE, 3072), (anon_sym_LPAREN, 3074), (aux_sym_test_pragma_token1, 3074),
     (aux_sym_once_pragma_token1, 3074), (aux_sym_must_call_pragma_token1, 3074),
     (aux_sym_export_pragma_token1, 3074), (sym_unsigned_int, 3072),
     (sym__explicit_signed_int, 3072), (sym_binary_int, 3074), (sym_octal_int, 3074),
     (sym_hex_int, 3074), (sym__explicit_signed_real, 3074), (sym_real_value, 3074),
     (aux_sym_bool_literal_with_string_token1, 3074),
     (aux_sym_bool_literal_with_string_token2, 3072),
     (aux_sym_bool_literal_with_string_token3, 3072), (sym_s_byte_char_str, 3074),
     (sym_d_byte_char_str, 3074), (aux_sym_time_token1, 3074), (anon_sym_PLUS, 3072),
     (anon_sym_DASH, 3072), (aux_sym_ltime_token1, 3074), (aux_sym_tod_token1, 3074),
     (aux_sym_ltod_token1, 3074), (aux_sym_short_date_token1, 3074),
     (aux_sym_long_date_token1, 3074), (aux_sym_short_date_and_time_token1, 3074),
     (aux_sym_long_date_and_time_token1, 3074), (aux_sym_sign_int_type_name_token1, 3072),
     (aux_sym_sign_int_type_name_token2, 3072), (aux_sym_sign_int_type_name_token3, 3072),
     (aux_sym_sign_int_type_name_token4, 3072), (aux_sym_unsign_int_type_name_token1, 3072),
     (aux_sym_unsign_int_type_name_token2, 3072), (aux_sym_unsign_int_type_name_token3, 3072),
     (aux_sym_unsign_int_type_name_token4, 3072), (aux_sym_real_type_name_token1, 3072),
     (aux_sym_real_type_name_token2, 3072), (aux_sym_string_name_token1, 3072),
     (aux_sym_char_name_token1, 3072), (aux_sym_multibits_type_name_token1, 3072),
     (aux_sym_multibits_type_name_token2, 3072), (aux_sym_multibits_type_name_token3, 3072),
     (aux_sym_multibits_type_name_token4, 3072), (anon_sym_SEMI, 3074), (anon_sym_PERCENT, 3074),
     (anon_sym_STAR, 3072), (aux_sym_ref_value_token1, 3072), (aux_sym_ref_addr_token1, 3072),
     (anon_sym_DOT_DOT_DOT, 3074), (aux_sym_method_decl_token1, 3072), (anon_sym_SLASH, 3072),
     (anon_sym_STAR_STAR, 3074), (anon_sym_AMP, 3074), (anon_sym_LT_GT, 3074), (anon_sym_LT, 3072),
     (anon_sym_GT, 3072), (anon_sym_LT_EQ, 3074), (anon_sym_GT_EQ, 3074),
     (aux_sym_or_operator_token1, 3072), (aux_sym_xor_operator_token1, 3072),
     (aux_sym_and_operator_token1, 3072), (aux_sym_mult_token1, 3072), (aux_sym_unary_token1, 3072),
     (aux_sym__stmt_token1, 3072), (aux_sym__stmt_token2, 3072), (aux_sym__stmt_token3, 3072),
     (aux_sym_if_stmt_token1, 3072), (aux_sym_if_stmt_token3, 3072),
     (aux_sym_case_stmt_token1, 3072), (aux_sym_case_stmt_token2, 3072),
     (aux_sym_for_stmt_token1, 3072), (aux_sym_while_stmt_token1, 3072),
     (aux_sym_repeat_stmt_token1, 3072), (aux_sym_raise_stmt_token1, 3072),
     (aux_sym_try_stmt_token1, 3072), (aux_sym_try_stmt_token2, 3072),
     (aux_sym_catch_clause_token1, 3072), (aux_sym_finally_clause_token1, 3072),
     (sym_c_style_comment, 3), (sym_pascal_style_comment, 3), (sym_pragma, 3),
     (sym__minus_before_base, 3074), (sym__plus_before_base, 3074)]"

lemma ts_parse_row_1196_scan: "row_scan tokens_2_1 0 ts_parse_row_1196 = Some (Suc (Suc (Suc (Suc (Suc (Suc 0))))))"
  unfolding ts_parse_row_1196_def by simp

text \<open>Lines 186736 to 186826.\<close>

definition ts_parse_row_1197 :: parse_row where
  "ts_parse_row_1197 =
    [(sym_identifier, 3076), (anon_sym_EQ, 3078),
     (aux_sym_ERR_unexpected_this_in_path_token1, 3076),
     (aux_sym_ERR_unexpected_super_in_path_token1, 3076), (sym_line_comment, 3),
     (anon_sym_LBRACE, 3076), (anon_sym_LPAREN, 3078), (aux_sym_test_pragma_token1, 3078),
     (aux_sym_once_pragma_token1, 3078), (aux_sym_must_call_pragma_token1, 3078),
     (aux_sym_export_pragma_token1, 3078), (sym_unsigned_int, 3076),
     (sym__explicit_signed_int, 3076), (sym_binary_int, 3078), (sym_octal_int, 3078),
     (sym_hex_int, 3078), (sym__explicit_signed_real, 3078), (sym_real_value, 3078),
     (aux_sym_bool_literal_with_string_token1, 3078),
     (aux_sym_bool_literal_with_string_token2, 3076),
     (aux_sym_bool_literal_with_string_token3, 3076), (sym_s_byte_char_str, 3078),
     (sym_d_byte_char_str, 3078), (aux_sym_time_token1, 3078), (anon_sym_PLUS, 3076),
     (anon_sym_DASH, 3076), (aux_sym_ltime_token1, 3078), (aux_sym_tod_token1, 3078),
     (aux_sym_ltod_token1, 3078), (aux_sym_short_date_token1, 3078),
     (aux_sym_long_date_token1, 3078), (aux_sym_short_date_and_time_token1, 3078),
     (aux_sym_long_date_and_time_token1, 3078), (aux_sym_sign_int_type_name_token1, 3076),
     (aux_sym_sign_int_type_name_token2, 3076), (aux_sym_sign_int_type_name_token3, 3076),
     (aux_sym_sign_int_type_name_token4, 3076), (aux_sym_unsign_int_type_name_token1, 3076),
     (aux_sym_unsign_int_type_name_token2, 3076), (aux_sym_unsign_int_type_name_token3, 3076),
     (aux_sym_unsign_int_type_name_token4, 3076), (aux_sym_real_type_name_token1, 3076),
     (aux_sym_real_type_name_token2, 3076), (aux_sym_string_name_token1, 3076),
     (aux_sym_char_name_token1, 3076), (aux_sym_multibits_type_name_token1, 3076),
     (aux_sym_multibits_type_name_token2, 3076), (aux_sym_multibits_type_name_token3, 3076),
     (aux_sym_multibits_type_name_token4, 3076), (anon_sym_SEMI, 3078), (anon_sym_PERCENT, 3078),
     (anon_sym_STAR, 3076), (aux_sym_ref_value_token1, 3076), (aux_sym_ref_addr_token1, 3076),
     (anon_sym_DOT_DOT_DOT, 3078), (aux_sym_method_decl_token1, 3076), (anon_sym_SLASH, 3076),
     (anon_sym_STAR_STAR, 3078), (anon_sym_AMP, 3078), (anon_sym_LT_GT, 3078), (anon_sym_LT, 3076),
     (anon_sym_GT, 3076), (anon_sym_LT_EQ, 3078), (anon_sym_GT_EQ, 3078),
     (aux_sym_or_operator_token1, 3076), (aux_sym_xor_operator_token1, 3076),
     (aux_sym_and_operator_token1, 3076), (aux_sym_mult_token1, 3076), (aux_sym_unary_token1, 3076),
     (aux_sym__stmt_token1, 3076), (aux_sym__stmt_token2, 3076), (aux_sym__stmt_token3, 3076),
     (aux_sym_if_stmt_token1, 3076), (aux_sym_if_stmt_token3, 3076),
     (aux_sym_case_stmt_token1, 3076), (aux_sym_case_stmt_token2, 3076),
     (aux_sym_for_stmt_token1, 3076), (aux_sym_while_stmt_token1, 3076),
     (aux_sym_repeat_stmt_token1, 3076), (aux_sym_raise_stmt_token1, 3076),
     (aux_sym_try_stmt_token1, 3076), (aux_sym_try_stmt_token2, 3076),
     (aux_sym_catch_clause_token1, 3076), (aux_sym_finally_clause_token1, 3076),
     (sym_c_style_comment, 3), (sym_pascal_style_comment, 3), (sym_pragma, 3),
     (sym__minus_before_base, 3078), (sym__plus_before_base, 3078)]"

lemma ts_parse_row_1197_scan: "row_scan tokens_2_1 0 ts_parse_row_1197 = Some (Suc (Suc (Suc (Suc (Suc (Suc 0))))))"
  unfolding ts_parse_row_1197_def by simp

text \<open>Lines 186827 to 186917.\<close>

definition ts_parse_row_1198 :: parse_row where
  "ts_parse_row_1198 =
    [(sym_identifier, 3080), (anon_sym_EQ, 3082),
     (aux_sym_ERR_unexpected_this_in_path_token1, 3080),
     (aux_sym_ERR_unexpected_super_in_path_token1, 3080), (sym_line_comment, 3),
     (anon_sym_LBRACE, 3080), (anon_sym_LPAREN, 3082), (aux_sym_test_pragma_token1, 3082),
     (aux_sym_once_pragma_token1, 3082), (aux_sym_must_call_pragma_token1, 3082),
     (aux_sym_export_pragma_token1, 3082), (sym_unsigned_int, 3080),
     (sym__explicit_signed_int, 3080), (sym_binary_int, 3082), (sym_octal_int, 3082),
     (sym_hex_int, 3082), (sym__explicit_signed_real, 3082), (sym_real_value, 3082),
     (aux_sym_bool_literal_with_string_token1, 3082),
     (aux_sym_bool_literal_with_string_token2, 3080),
     (aux_sym_bool_literal_with_string_token3, 3080), (sym_s_byte_char_str, 3082),
     (sym_d_byte_char_str, 3082), (aux_sym_time_token1, 3082), (anon_sym_PLUS, 3080),
     (anon_sym_DASH, 3080), (aux_sym_ltime_token1, 3082), (aux_sym_tod_token1, 3082),
     (aux_sym_ltod_token1, 3082), (aux_sym_short_date_token1, 3082),
     (aux_sym_long_date_token1, 3082), (aux_sym_short_date_and_time_token1, 3082),
     (aux_sym_long_date_and_time_token1, 3082), (aux_sym_sign_int_type_name_token1, 3080),
     (aux_sym_sign_int_type_name_token2, 3080), (aux_sym_sign_int_type_name_token3, 3080),
     (aux_sym_sign_int_type_name_token4, 3080), (aux_sym_unsign_int_type_name_token1, 3080),
     (aux_sym_unsign_int_type_name_token2, 3080), (aux_sym_unsign_int_type_name_token3, 3080),
     (aux_sym_unsign_int_type_name_token4, 3080), (aux_sym_real_type_name_token1, 3080),
     (aux_sym_real_type_name_token2, 3080), (aux_sym_string_name_token1, 3080),
     (aux_sym_char_name_token1, 3080), (aux_sym_multibits_type_name_token1, 3080),
     (aux_sym_multibits_type_name_token2, 3080), (aux_sym_multibits_type_name_token3, 3080),
     (aux_sym_multibits_type_name_token4, 3080), (anon_sym_SEMI, 3082), (anon_sym_PERCENT, 3082),
     (anon_sym_STAR, 3080), (aux_sym_ref_value_token1, 3080), (aux_sym_ref_addr_token1, 3080),
     (anon_sym_DOT_DOT_DOT, 3082), (aux_sym_method_decl_token1, 3080), (anon_sym_SLASH, 3080),
     (anon_sym_STAR_STAR, 3082), (anon_sym_AMP, 3082), (anon_sym_LT_GT, 3082), (anon_sym_LT, 3080),
     (anon_sym_GT, 3080), (anon_sym_LT_EQ, 3082), (anon_sym_GT_EQ, 3082),
     (aux_sym_or_operator_token1, 3080), (aux_sym_xor_operator_token1, 3080),
     (aux_sym_and_operator_token1, 3080), (aux_sym_mult_token1, 3080), (aux_sym_unary_token1, 3080),
     (aux_sym__stmt_token1, 3080), (aux_sym__stmt_token2, 3080), (aux_sym__stmt_token3, 3080),
     (aux_sym_if_stmt_token1, 3080), (aux_sym_if_stmt_token3, 3080),
     (aux_sym_case_stmt_token1, 3080), (aux_sym_case_stmt_token2, 3080),
     (aux_sym_for_stmt_token1, 3080), (aux_sym_while_stmt_token1, 3080),
     (aux_sym_repeat_stmt_token1, 3080), (aux_sym_raise_stmt_token1, 3080),
     (aux_sym_try_stmt_token1, 3080), (aux_sym_try_stmt_token2, 3080),
     (aux_sym_catch_clause_token1, 3080), (aux_sym_finally_clause_token1, 3080),
     (sym_c_style_comment, 3), (sym_pascal_style_comment, 3), (sym_pragma, 3),
     (sym__minus_before_base, 3082), (sym__plus_before_base, 3082)]"

lemma ts_parse_row_1198_scan: "row_scan tokens_2_1 0 ts_parse_row_1198 = Some (Suc (Suc (Suc (Suc (Suc (Suc 0))))))"
  unfolding ts_parse_row_1198_def by simp

text \<open>Lines 186918 to 187008.\<close>

definition ts_parse_row_1199 :: parse_row where
  "ts_parse_row_1199 =
    [(sym_identifier, 3084), (anon_sym_EQ, 3086),
     (aux_sym_ERR_unexpected_this_in_path_token1, 3084),
     (aux_sym_ERR_unexpected_super_in_path_token1, 3084), (sym_line_comment, 3),
     (anon_sym_LBRACE, 3084), (anon_sym_LPAREN, 3086), (aux_sym_test_pragma_token1, 3086),
     (aux_sym_once_pragma_token1, 3086), (aux_sym_must_call_pragma_token1, 3086),
     (aux_sym_export_pragma_token1, 3086), (sym_unsigned_int, 3084),
     (sym__explicit_signed_int, 3084), (sym_binary_int, 3086), (sym_octal_int, 3086),
     (sym_hex_int, 3086), (sym__explicit_signed_real, 3086), (sym_real_value, 3086),
     (aux_sym_bool_literal_with_string_token1, 3086),
     (aux_sym_bool_literal_with_string_token2, 3084),
     (aux_sym_bool_literal_with_string_token3, 3084), (sym_s_byte_char_str, 3086),
     (sym_d_byte_char_str, 3086), (aux_sym_time_token1, 3086), (anon_sym_PLUS, 3084),
     (anon_sym_DASH, 3084), (aux_sym_ltime_token1, 3086), (aux_sym_tod_token1, 3086),
     (aux_sym_ltod_token1, 3086), (aux_sym_short_date_token1, 3086),
     (aux_sym_long_date_token1, 3086), (aux_sym_short_date_and_time_token1, 3086),
     (aux_sym_long_date_and_time_token1, 3086), (aux_sym_sign_int_type_name_token1, 3084),
     (aux_sym_sign_int_type_name_token2, 3084), (aux_sym_sign_int_type_name_token3, 3084),
     (aux_sym_sign_int_type_name_token4, 3084), (aux_sym_unsign_int_type_name_token1, 3084),
     (aux_sym_unsign_int_type_name_token2, 3084), (aux_sym_unsign_int_type_name_token3, 3084),
     (aux_sym_unsign_int_type_name_token4, 3084), (aux_sym_real_type_name_token1, 3084),
     (aux_sym_real_type_name_token2, 3084), (aux_sym_string_name_token1, 3084),
     (aux_sym_char_name_token1, 3084), (aux_sym_multibits_type_name_token1, 3084),
     (aux_sym_multibits_type_name_token2, 3084), (aux_sym_multibits_type_name_token3, 3084),
     (aux_sym_multibits_type_name_token4, 3084), (anon_sym_SEMI, 3086), (anon_sym_PERCENT, 3086),
     (anon_sym_STAR, 3084), (aux_sym_ref_value_token1, 3084), (aux_sym_ref_addr_token1, 3084),
     (anon_sym_DOT_DOT_DOT, 3086), (aux_sym_method_decl_token1, 3084), (anon_sym_SLASH, 3084),
     (anon_sym_STAR_STAR, 3086), (anon_sym_AMP, 3086), (anon_sym_LT_GT, 3086), (anon_sym_LT, 3084),
     (anon_sym_GT, 3084), (anon_sym_LT_EQ, 3086), (anon_sym_GT_EQ, 3086),
     (aux_sym_or_operator_token1, 3084), (aux_sym_xor_operator_token1, 3084),
     (aux_sym_and_operator_token1, 3084), (aux_sym_mult_token1, 3084), (aux_sym_unary_token1, 3084),
     (aux_sym__stmt_token1, 3084), (aux_sym__stmt_token2, 3084), (aux_sym__stmt_token3, 3084),
     (aux_sym_if_stmt_token1, 3084), (aux_sym_if_stmt_token3, 3084),
     (aux_sym_case_stmt_token1, 3084), (aux_sym_case_stmt_token2, 3084),
     (aux_sym_for_stmt_token1, 3084), (aux_sym_while_stmt_token1, 3084),
     (aux_sym_repeat_stmt_token1, 3084), (aux_sym_raise_stmt_token1, 3084),
     (aux_sym_try_stmt_token1, 3084), (aux_sym_try_stmt_token2, 3084),
     (aux_sym_catch_clause_token1, 3084), (aux_sym_finally_clause_token1, 3084),
     (sym_c_style_comment, 3), (sym_pascal_style_comment, 3), (sym_pragma, 3),
     (sym__minus_before_base, 3086), (sym__plus_before_base, 3086)]"

lemma ts_parse_row_1199_scan: "row_scan tokens_2_1 0 ts_parse_row_1199 = Some (Suc (Suc (Suc (Suc (Suc (Suc 0))))))"
  unfolding ts_parse_row_1199_def by simp

definition parse_rows_8 :: "parse_row list" where
  "parse_rows_8 =
    [ts_parse_row_1050, ts_parse_row_1051, ts_parse_row_1052, ts_parse_row_1053, ts_parse_row_1054,
     ts_parse_row_1055, ts_parse_row_1056, ts_parse_row_1057, ts_parse_row_1058, ts_parse_row_1059,
     ts_parse_row_1060, ts_parse_row_1061, ts_parse_row_1062, ts_parse_row_1063, ts_parse_row_1064,
     ts_parse_row_1065, ts_parse_row_1066, ts_parse_row_1067, ts_parse_row_1068, ts_parse_row_1069,
     ts_parse_row_1070, ts_parse_row_1071, ts_parse_row_1072, ts_parse_row_1073, ts_parse_row_1074,
     ts_parse_row_1075, ts_parse_row_1076, ts_parse_row_1077, ts_parse_row_1078, ts_parse_row_1079,
     ts_parse_row_1080, ts_parse_row_1081, ts_parse_row_1082, ts_parse_row_1083, ts_parse_row_1084,
     ts_parse_row_1085, ts_parse_row_1086, ts_parse_row_1087, ts_parse_row_1088, ts_parse_row_1089,
     ts_parse_row_1090, ts_parse_row_1091, ts_parse_row_1092, ts_parse_row_1093, ts_parse_row_1094,
     ts_parse_row_1095, ts_parse_row_1096, ts_parse_row_1097, ts_parse_row_1098, ts_parse_row_1099,
     ts_parse_row_1100, ts_parse_row_1101, ts_parse_row_1102, ts_parse_row_1103, ts_parse_row_1104,
     ts_parse_row_1105, ts_parse_row_1106, ts_parse_row_1107, ts_parse_row_1108, ts_parse_row_1109,
     ts_parse_row_1110, ts_parse_row_1111, ts_parse_row_1112, ts_parse_row_1113, ts_parse_row_1114,
     ts_parse_row_1115, ts_parse_row_1116, ts_parse_row_1117, ts_parse_row_1118, ts_parse_row_1119,
     ts_parse_row_1120, ts_parse_row_1121, ts_parse_row_1122, ts_parse_row_1123, ts_parse_row_1124,
     ts_parse_row_1125, ts_parse_row_1126, ts_parse_row_1127, ts_parse_row_1128, ts_parse_row_1129,
     ts_parse_row_1130, ts_parse_row_1131, ts_parse_row_1132, ts_parse_row_1133, ts_parse_row_1134,
     ts_parse_row_1135, ts_parse_row_1136, ts_parse_row_1137, ts_parse_row_1138, ts_parse_row_1139,
     ts_parse_row_1140, ts_parse_row_1141, ts_parse_row_1142, ts_parse_row_1143, ts_parse_row_1144,
     ts_parse_row_1145, ts_parse_row_1146, ts_parse_row_1147, ts_parse_row_1148, ts_parse_row_1149,
     ts_parse_row_1150, ts_parse_row_1151, ts_parse_row_1152, ts_parse_row_1153, ts_parse_row_1154,
     ts_parse_row_1155, ts_parse_row_1156, ts_parse_row_1157, ts_parse_row_1158, ts_parse_row_1159,
     ts_parse_row_1160, ts_parse_row_1161, ts_parse_row_1162, ts_parse_row_1163, ts_parse_row_1164,
     ts_parse_row_1165, ts_parse_row_1166, ts_parse_row_1167, ts_parse_row_1168, ts_parse_row_1169,
     ts_parse_row_1170, ts_parse_row_1171, ts_parse_row_1172, ts_parse_row_1173, ts_parse_row_1174,
     ts_parse_row_1175, ts_parse_row_1176, ts_parse_row_1177, ts_parse_row_1178, ts_parse_row_1179,
     ts_parse_row_1180, ts_parse_row_1181, ts_parse_row_1182, ts_parse_row_1183, ts_parse_row_1184,
     ts_parse_row_1185, ts_parse_row_1186, ts_parse_row_1187, ts_parse_row_1188, ts_parse_row_1189,
     ts_parse_row_1190, ts_parse_row_1191, ts_parse_row_1192, ts_parse_row_1193, ts_parse_row_1194,
     ts_parse_row_1195, ts_parse_row_1196, ts_parse_row_1197, ts_parse_row_1198, ts_parse_row_1199]"

lemmas parse_rows_8_scan =
  ts_parse_row_1050_scan ts_parse_row_1051_scan ts_parse_row_1052_scan ts_parse_row_1053_scan
  ts_parse_row_1054_scan ts_parse_row_1055_scan ts_parse_row_1056_scan ts_parse_row_1057_scan
  ts_parse_row_1058_scan ts_parse_row_1059_scan ts_parse_row_1060_scan ts_parse_row_1061_scan
  ts_parse_row_1062_scan ts_parse_row_1063_scan ts_parse_row_1064_scan ts_parse_row_1065_scan
  ts_parse_row_1066_scan ts_parse_row_1067_scan ts_parse_row_1068_scan ts_parse_row_1069_scan
  ts_parse_row_1070_scan ts_parse_row_1071_scan ts_parse_row_1072_scan ts_parse_row_1073_scan
  ts_parse_row_1074_scan ts_parse_row_1075_scan ts_parse_row_1076_scan ts_parse_row_1077_scan
  ts_parse_row_1078_scan ts_parse_row_1079_scan ts_parse_row_1080_scan ts_parse_row_1081_scan
  ts_parse_row_1082_scan ts_parse_row_1083_scan ts_parse_row_1084_scan ts_parse_row_1085_scan
  ts_parse_row_1086_scan ts_parse_row_1087_scan ts_parse_row_1088_scan ts_parse_row_1089_scan
  ts_parse_row_1090_scan ts_parse_row_1091_scan ts_parse_row_1092_scan ts_parse_row_1093_scan
  ts_parse_row_1094_scan ts_parse_row_1095_scan ts_parse_row_1096_scan ts_parse_row_1097_scan
  ts_parse_row_1098_scan ts_parse_row_1099_scan ts_parse_row_1100_scan ts_parse_row_1101_scan
  ts_parse_row_1102_scan ts_parse_row_1103_scan ts_parse_row_1104_scan ts_parse_row_1105_scan
  ts_parse_row_1106_scan ts_parse_row_1107_scan ts_parse_row_1108_scan ts_parse_row_1109_scan
  ts_parse_row_1110_scan ts_parse_row_1111_scan ts_parse_row_1112_scan ts_parse_row_1113_scan
  ts_parse_row_1114_scan ts_parse_row_1115_scan ts_parse_row_1116_scan ts_parse_row_1117_scan
  ts_parse_row_1118_scan ts_parse_row_1119_scan ts_parse_row_1120_scan ts_parse_row_1121_scan
  ts_parse_row_1122_scan ts_parse_row_1123_scan ts_parse_row_1124_scan ts_parse_row_1125_scan
  ts_parse_row_1126_scan ts_parse_row_1127_scan ts_parse_row_1128_scan ts_parse_row_1129_scan
  ts_parse_row_1130_scan ts_parse_row_1131_scan ts_parse_row_1132_scan ts_parse_row_1133_scan
  ts_parse_row_1134_scan ts_parse_row_1135_scan ts_parse_row_1136_scan ts_parse_row_1137_scan
  ts_parse_row_1138_scan ts_parse_row_1139_scan ts_parse_row_1140_scan ts_parse_row_1141_scan
  ts_parse_row_1142_scan ts_parse_row_1143_scan ts_parse_row_1144_scan ts_parse_row_1145_scan
  ts_parse_row_1146_scan ts_parse_row_1147_scan ts_parse_row_1148_scan ts_parse_row_1149_scan
  ts_parse_row_1150_scan ts_parse_row_1151_scan ts_parse_row_1152_scan ts_parse_row_1153_scan
  ts_parse_row_1154_scan ts_parse_row_1155_scan ts_parse_row_1156_scan ts_parse_row_1157_scan
  ts_parse_row_1158_scan ts_parse_row_1159_scan ts_parse_row_1160_scan ts_parse_row_1161_scan
  ts_parse_row_1162_scan ts_parse_row_1163_scan ts_parse_row_1164_scan ts_parse_row_1165_scan
  ts_parse_row_1166_scan ts_parse_row_1167_scan ts_parse_row_1168_scan ts_parse_row_1169_scan
  ts_parse_row_1170_scan ts_parse_row_1171_scan ts_parse_row_1172_scan ts_parse_row_1173_scan
  ts_parse_row_1174_scan ts_parse_row_1175_scan ts_parse_row_1176_scan ts_parse_row_1177_scan
  ts_parse_row_1178_scan ts_parse_row_1179_scan ts_parse_row_1180_scan ts_parse_row_1181_scan
  ts_parse_row_1182_scan ts_parse_row_1183_scan ts_parse_row_1184_scan ts_parse_row_1185_scan
  ts_parse_row_1186_scan ts_parse_row_1187_scan ts_parse_row_1188_scan ts_parse_row_1189_scan
  ts_parse_row_1190_scan ts_parse_row_1191_scan ts_parse_row_1192_scan ts_parse_row_1193_scan
  ts_parse_row_1194_scan ts_parse_row_1195_scan ts_parse_row_1196_scan ts_parse_row_1197_scan
  ts_parse_row_1198_scan ts_parse_row_1199_scan

end
