(* ===== verification/Parse_Table_9.thy ===== *)
theory Parse_Table_9
  imports Parse_Cells
begin

text \<open>
  The rows 1200 to 1347 of \<open>ts_parse_table\<close> in \<open>src/crates/tree-sitter/src/parser.c\<close>, and the check of each
  against the tokens of its mode.
\<close>

text \<open>Lines 187009 to 187099.\<close>

definition ts_parse_row_1200 :: parse_row where
  "ts_parse_row_1200 =
    [(sym_identifier, 3088), (anon_sym_EQ, 3090),
     (aux_sym_ERR_unexpected_this_in_path_token1, 3088),
     (aux_sym_ERR_unexpected_super_in_path_token1, 3088), (sym_line_comment, 3),
     (anon_sym_LBRACE, 3088), (anon_sym_LPAREN, 3090), (aux_sym_test_pragma_token1, 3090),
     (aux_sym_once_pragma_token1, 3090), (aux_sym_must_call_pragma_token1, 3090),
     (aux_sym_export_pragma_token1, 3090), (sym_unsigned_int, 3088),
     (sym__explicit_signed_int, 3088), (sym_binary_int, 3090), (sym_octal_int, 3090),
     (sym_hex_int, 3090), (sym__explicit_signed_real, 3090), (sym_real_value, 3090),
     (aux_sym_bool_literal_with_string_token1, 3090),
     (aux_sym_bool_literal_with_string_token2, 3088),
     (aux_sym_bool_literal_with_string_token3, 3088), (sym_s_byte_char_str, 3090),
     (sym_d_byte_char_str, 3090), (aux_sym_time_token1, 3090), (anon_sym_PLUS, 3088),
     (anon_sym_DASH, 3088), (aux_sym_ltime_token1, 3090), (aux_sym_tod_token1, 3090),
     (aux_sym_ltod_token1, 3090), (aux_sym_short_date_token1, 3090),
     (aux_sym_long_date_token1, 3090), (aux_sym_short_date_and_time_token1, 3090),
     (aux_sym_long_date_and_time_token1, 3090), (aux_sym_sign_int_type_name_token1, 3088),
     (aux_sym_sign_int_type_name_token2, 3088), (aux_sym_sign_int_type_name_token3, 3088),
     (aux_sym_sign_int_type_name_token4, 3088), (aux_sym_unsign_int_type_name_token1, 3088),
     (aux_sym_unsign_int_type_name_token2, 3088), (aux_sym_unsign_int_type_name_token3, 3088),
     (aux_sym_unsign_int_type_name_token4, 3088), (aux_sym_real_type_name_token1, 3088),
     (aux_sym_real_type_name_token2, 3088), (aux_sym_string_name_token1, 3088),
     (aux_sym_char_name_token1, 3088), (aux_sym_multibits_type_name_token1, 3088),
     (aux_sym_multibits_type_name_token2, 3088), (aux_sym_multibits_type_name_token3, 3088),
     (aux_sym_multibits_type_name_token4, 3088), (anon_sym_SEMI, 3090), (anon_sym_PERCENT, 3090),
     (anon_sym_STAR, 3088), (aux_sym_ref_value_token1, 3088), (aux_sym_ref_addr_token1, 3088),
     (anon_sym_DOT_DOT_DOT, 3090), (aux_sym_method_decl_token1, 3088), (anon_sym_SLASH, 3088),
     (anon_sym_STAR_STAR, 3090), (anon_sym_AMP, 3090), (anon_sym_LT_GT, 3090), (anon_sym_LT, 3088),
     (anon_sym_GT, 3088), (anon_sym_LT_EQ, 3090), (anon_sym_GT_EQ, 3090),
     (aux_sym_or_operator_token1, 3088), (aux_sym_xor_operator_token1, 3088),
     (aux_sym_and_operator_token1, 3088), (aux_sym_mult_token1, 3088), (aux_sym_unary_token1, 3088),
     (aux_sym__stmt_token1, 3088), (aux_sym__stmt_token2, 3088), (aux_sym__stmt_token3, 3088),
     (aux_sym_if_stmt_token1, 3088), (aux_sym_if_stmt_token3, 3088),
     (aux_sym_case_stmt_token1, 3088), (aux_sym_case_stmt_token2, 3088),
     (aux_sym_for_stmt_token1, 3088), (aux_sym_while_stmt_token1, 3088),
     (aux_sym_repeat_stmt_token1, 3088), (aux_sym_raise_stmt_token1, 3088),
     (aux_sym_try_stmt_token1, 3088), (aux_sym_try_stmt_token2, 3088),
     (aux_sym_catch_clause_token1, 3088), (aux_sym_finally_clause_token1, 3088),
     (sym_c_style_comment, 3), (sym_pascal_style_comment, 3), (sym_pragma, 3),
     (sym__minus_before_base, 3090), (sym__plus_before_base, 3090)]"

lemma ts_parse_row_1200_scan: "row_scan tokens_2_1 0 ts_parse_row_1200 = Some (Suc (Suc (Suc (Suc (Suc (Suc 0))))))"
  unfolding ts_parse_row_1200_def by simp

text \<open>Lines 187100 to 187190.\<close>

definition ts_parse_row_1201 :: parse_row where
  "ts_parse_row_1201 =
    [(sym_identifier, 3088), (anon_sym_EQ, 3090),
     (aux_sym_ERR_unexpected_this_in_path_token1, 3088),
     (aux_sym_ERR_unexpected_super_in_path_token1, 3088), (sym_line_comment, 3),
     (anon_sym_LBRACE, 3088), (anon_sym_LPAREN, 3090), (aux_sym_test_pragma_token1, 3090),
     (aux_sym_once_pragma_token1, 3090), (aux_sym_must_call_pragma_token1, 3090),
     (aux_sym_export_pragma_token1, 3090), (sym_unsigned_int, 3088),
     (sym__explicit_signed_int, 3088), (sym_binary_int, 3090), (sym_octal_int, 3090),
     (sym_hex_int, 3090), (sym__explicit_signed_real, 3090), (sym_real_value, 3090),
     (aux_sym_bool_literal_with_string_token1, 3090),
     (aux_sym_bool_literal_with_string_token2, 3088),
     (aux_sym_bool_literal_with_string_token3, 3088), (sym_s_byte_char_str, 3090),
     (sym_d_byte_char_str, 3090), (aux_sym_time_token1, 3090), (anon_sym_PLUS, 3088),
     (anon_sym_DASH, 3088), (aux_sym_ltime_token1, 3090), (aux_sym_tod_token1, 3090),
     (aux_sym_ltod_token1, 3090), (aux_sym_short_date_token1, 3090),
     (aux_sym_long_date_token1, 3090), (aux_sym_short_date_and_time_token1, 3090),
     (aux_sym_long_date_and_time_token1, 3090), (aux_sym_sign_int_type_name_token1, 3088),
     (aux_sym_sign_int_type_name_token2, 3088), (aux_sym_sign_int_type_name_token3, 3088),
     (aux_sym_sign_int_type_name_token4, 3088), (aux_sym_unsign_int_type_name_token1, 3088),
     (aux_sym_unsign_int_type_name_token2, 3088), (aux_sym_unsign_int_type_name_token3, 3088),
     (aux_sym_unsign_int_type_name_token4, 3088), (aux_sym_real_type_name_token1, 3088),
     (aux_sym_real_type_name_token2, 3088), (aux_sym_string_name_token1, 3088),
     (aux_sym_char_name_token1, 3088), (aux_sym_multibits_type_name_token1, 3088),
     (aux_sym_multibits_type_name_token2, 3088), (aux_sym_multibits_type_name_token3, 3088),
     (aux_sym_multibits_type_name_token4, 3088), (anon_sym_SEMI, 3090), (anon_sym_PERCENT, 3090),
     (anon_sym_STAR, 3088), (aux_sym_ref_value_token1, 3088), (aux_sym_ref_addr_token1, 3088),
     (anon_sym_DOT_DOT_DOT, 3090), (aux_sym_method_decl_token1, 3088), (anon_sym_SLASH, 3088),
     (anon_sym_STAR_STAR, 3090), (anon_sym_AMP, 3090), (anon_sym_LT_GT, 3090), (anon_sym_LT, 3088),
     (anon_sym_GT, 3088), (anon_sym_LT_EQ, 3090), (anon_sym_GT_EQ, 3090),
     (aux_sym_or_operator_token1, 3088), (aux_sym_xor_operator_token1, 3088),
     (aux_sym_and_operator_token1, 3088), (aux_sym_mult_token1, 3088), (aux_sym_unary_token1, 3088),
     (aux_sym__stmt_token1, 3088), (aux_sym__stmt_token2, 3088), (aux_sym__stmt_token3, 3088),
     (aux_sym_if_stmt_token1, 3088), (aux_sym_if_stmt_token3, 3088),
     (aux_sym_case_stmt_token1, 3088), (aux_sym_case_stmt_token2, 3088),
     (aux_sym_for_stmt_token1, 3088), (aux_sym_while_stmt_token1, 3088),
     (aux_sym_repeat_stmt_token1, 3088), (aux_sym_raise_stmt_token1, 3088),
     (aux_sym_try_stmt_token1, 3088), (aux_sym_try_stmt_token2, 3088),
     (aux_sym_catch_clause_token1, 3088), (aux_sym_finally_clause_token1, 3088),
     (sym_c_style_comment, 3), (sym_pascal_style_comment, 3), (sym_pragma, 3),
     (sym__minus_before_base, 3090), (sym__plus_before_base, 3090)]"

lemma ts_parse_row_1201_scan: "row_scan tokens_2_1 0 ts_parse_row_1201 = Some (Suc (Suc (Suc (Suc (Suc (Suc 0))))))"
  unfolding ts_parse_row_1201_def by simp

text \<open>Lines 187191 to 187281.\<close>

definition ts_parse_row_1202 :: parse_row where
  "ts_parse_row_1202 =
    [(sym_identifier, 3092), (anon_sym_EQ, 3094),
     (aux_sym_ERR_unexpected_this_in_path_token1, 3092),
     (aux_sym_ERR_unexpected_super_in_path_token1, 3092), (sym_line_comment, 3),
     (anon_sym_LBRACE, 3092), (anon_sym_LPAREN, 3094), (aux_sym_test_pragma_token1, 3094),
     (aux_sym_once_pragma_token1, 3094), (aux_sym_must_call_pragma_token1, 3094),
     (aux_sym_export_pragma_token1, 3094), (sym_unsigned_int, 3092),
     (sym__explicit_signed_int, 3092), (sym_binary_int, 3094), (sym_octal_int, 3094),
     (sym_hex_int, 3094), (sym__explicit_signed_real, 3094), (sym_real_value, 3094),
     (aux_sym_bool_literal_with_string_token1, 3094),
     (aux_sym_bool_literal_with_string_token2, 3092),
     (aux_sym_bool_literal_with_string_token3, 3092), (sym_s_byte_char_str, 3094),
     (sym_d_byte_char_str, 3094), (aux_sym_time_token1, 3094), (anon_sym_PLUS, 3092),
     (anon_sym_DASH, 3092), (aux_sym_ltime_token1, 3094), (aux_sym_tod_token1, 3094),
     (aux_sym_ltod_token1, 3094), (aux_sym_short_date_token1, 3094),
     (aux_sym_long_date_token1, 3094), (aux_sym_short_date_and_time_token1, 3094),
     (aux_sym_long_date_and_time_token1, 3094), (aux_sym_sign_int_type_name_token1, 3092),
     (aux_sym_sign_int_type_name_token2, 3092), (aux_sym_sign_int_type_name_token3, 3092),
     (aux_sym_sign_int_type_name_token4, 3092), (aux_sym_unsign_int_type_name_token1, 3092),
     (aux_sym_unsign_int_type_name_token2, 3092), (aux_sym_unsign_int_type_name_token3, 3092),
     (aux_sym_unsign_int_type_name_token4, 3092), (aux_sym_real_type_name_token1, 3092),
     (aux_sym_real_type_name_token2, 3092), (aux_sym_string_name_token1, 3092),
     (aux_sym_char_name_token1, 3092), (aux_sym_multibits_type_name_token1, 3092),
     (aux_sym_multibits_type_name_token2, 3092), (aux_sym_multibits_type_name_token3, 3092),
     (aux_sym_multibits_type_name_token4, 3092), (anon_sym_SEMI, 3094), (anon_sym_PERCENT, 3094),
     (anon_sym_STAR, 3092), (aux_sym_ref_value_token1, 3092), (aux_sym_ref_addr_token1, 3092),
     (anon_sym_DOT_DOT_DOT, 3094), (aux_sym_method_decl_token1, 3092), (anon_sym_SLASH, 3092),
     (anon_sym_STAR_STAR, 3094), (anon_sym_AMP, 3094), (anon_sym_LT_GT, 3094), (anon_sym_LT, 3092),
     (anon_sym_GT, 3092), (anon_sym_LT_EQ, 3094), (anon_sym_GT_EQ, 3094),
     (aux_sym_or_operator_token1, 3092), (aux_sym_xor_operator_token1, 3092),
     (aux_sym_and_operator_token1, 3092), (aux_sym_mult_token1, 3092), (aux_sym_unary_token1, 3092),
     (aux_sym__stmt_token1, 3092), (aux_sym__stmt_token2, 3092), (aux_sym__stmt_token3, 3092),
     (aux_sym_if_stmt_token1, 3092), (aux_sym_if_stmt_token3, 3092),
     (aux_sym_case_stmt_token1, 3092), (aux_sym_case_stmt_token2, 3092),
     (aux_sym_for_stmt_token1, 3092), (aux_sym_while_stmt_token1, 3092),
     (aux_sym_repeat_stmt_token1, 3092), (aux_sym_raise_stmt_token1, 3092),
     (aux_sym_try_stmt_token1, 3092), (aux_sym_try_stmt_token2, 3092),
     (aux_sym_catch_clause_token1, 3092), (aux_sym_finally_clause_token1, 3092),
     (sym_c_style_comment, 3), (sym_pascal_style_comment, 3), (sym_pragma, 3),
     (sym__minus_before_base, 3094), (sym__plus_before_base, 3094)]"

lemma ts_parse_row_1202_scan: "row_scan tokens_2_1 0 ts_parse_row_1202 = Some (Suc (Suc (Suc (Suc (Suc (Suc 0))))))"
  unfolding ts_parse_row_1202_def by simp

text \<open>Lines 187282 to 187372.\<close>

definition ts_parse_row_1203 :: parse_row where
  "ts_parse_row_1203 =
    [(sym_identifier, 3096), (anon_sym_EQ, 3098),
     (aux_sym_ERR_unexpected_this_in_path_token1, 3096),
     (aux_sym_ERR_unexpected_super_in_path_token1, 3096), (sym_line_comment, 3),
     (anon_sym_LBRACE, 3096), (anon_sym_LPAREN, 3098), (aux_sym_test_pragma_token1, 3098),
     (aux_sym_once_pragma_token1, 3098), (aux_sym_must_call_pragma_token1, 3098),
     (aux_sym_export_pragma_token1, 3098), (sym_unsigned_int, 3096),
     (sym__explicit_signed_int, 3096), (sym_binary_int, 3098), (sym_octal_int, 3098),
     (sym_hex_int, 3098), (sym__explicit_signed_real, 3098), (sym_real_value, 3098),
     (aux_sym_bool_literal_with_string_token1, 3098),
     (aux_sym_bool_literal_with_string_token2, 3096),
     (aux_sym_bool_literal_with_string_token3, 3096), (sym_s_byte_char_str, 3098),
     (sym_d_byte_char_str, 3098), (aux_sym_time_token1, 3098), (anon_sym_PLUS, 3096),
     (anon_sym_DASH, 3096), (aux_sym_ltime_token1, 3098), (aux_sym_tod_token1, 3098),
     (aux_sym_ltod_token1, 3098), (aux_sym_short_date_token1, 3098),
     (aux_sym_long_date_token1, 3098), (aux_sym_short_date_and_time_token1, 3098),
     (aux_sym_long_date_and_time_token1, 3098), (aux_sym_sign_int_type_name_token1, 3096),
     (aux_sym_sign_int_type_name_token2, 3096), (aux_sym_sign_int_type_name_token3, 3096),
     (aux_sym_sign_int_type_name_token4, 3096), (aux_sym_unsign_int_type_name_token1, 3096),
     (aux_sym_unsign_int_type_name_token2, 3096), (aux_sym_unsign_int_type_name_token3, 3096),
     (aux_sym_unsign_int_type_name_token4, 3096), (aux_sym_real_type_name_token1, 3096),
     (aux_sym_real_type_name_token2, 3096), (aux_sym_string_name_token1, 3096),
     (aux_sym_char_name_token1, 3096), (aux_sym_multibits_type_name_token1, 3096),
     (aux_sym_multibits_type_name_token2, 3096), (aux_sym_multibits_type_name_token3, 3096),
     (aux_sym_multibits_type_name_token4, 3096), (anon_sym_SEMI, 3098), (anon_sym_PERCENT, 3098),
     (anon_sym_STAR, 3096), (aux_sym_ref_value_token1, 3096), (aux_sym_ref_addr_token1, 3096),
     (anon_sym_DOT_DOT_DOT, 3098), (aux_sym_method_decl_token1, 3096), (anon_sym_SLASH, 3096),
     (anon_sym_STAR_STAR, 3098), (anon_sym_AMP, 3098), (anon_sym_LT_GT, 3098), (anon_sym_LT, 3096),
     (anon_sym_GT, 3096), (anon_sym_LT_EQ, 3098), (anon_sym_GT_EQ, 3098),
     (aux_sym_or_operator_token1, 3096), (aux_sym_xor_operator_token1, 3096),
     (aux_sym_and_operator_token1, 3096), (aux_sym_mult_token1, 3096), (aux_sym_unary_token1, 3096),
     (aux_sym__stmt_token1, 3096), (aux_sym__stmt_token2, 3096), (aux_sym__stmt_token3, 3096),
     (aux_sym_if_stmt_token1, 3096), (aux_sym_if_stmt_token3, 3096),
     (aux_sym_case_stmt_token1, 3096), (aux_sym_case_stmt_token2, 3096),
     (aux_sym_for_stmt_token1, 3096), (aux_sym_while_stmt_token1, 3096),
     (aux_sym_repeat_stmt_token1, 3096), (aux_sym_raise_stmt_token1, 3096),
     (aux_sym_try_stmt_token1, 3096), (aux_sym_try_stmt_token2, 3096),
     (aux_sym_catch_clause_token1, 3096), (aux_sym_finally_clause_token1, 3096),
     (sym_c_style_comment, 3), (sym_pascal_style_comment, 3), (sym_pragma, 3),
     (sym__minus_before_base, 3098), (sym__plus_before_base, 3098)]"

lemma ts_parse_row_1203_scan: "row_scan tokens_2_1 0 ts_parse_row_1203 = Some (Suc (Suc (Suc (Suc (Suc (Suc 0))))))"
  unfolding ts_parse_row_1203_def by simp

text \<open>Lines 187373 to 187463.\<close>

definition ts_parse_row_1204 :: parse_row where
  "ts_parse_row_1204 =
    [(sym_identifier, 3100), (anon_sym_EQ, 3102),
     (aux_sym_ERR_unexpected_this_in_path_token1, 3100),
     (aux_sym_ERR_unexpected_super_in_path_token1, 3100), (sym_line_comment, 3),
     (anon_sym_LBRACE, 3100), (anon_sym_LPAREN, 3102), (aux_sym_test_pragma_token1, 3102),
     (aux_sym_once_pragma_token1, 3102), (aux_sym_must_call_pragma_token1, 3102),
     (aux_sym_export_pragma_token1, 3102), (sym_unsigned_int, 3100),
     (sym__explicit_signed_int, 3100), (sym_binary_int, 3102), (sym_octal_int, 3102),
     (sym_hex_int, 3102), (sym__explicit_signed_real, 3102), (sym_real_value, 3102),
     (aux_sym_bool_literal_with_string_token1, 3102),
     (aux_sym_bool_literal_with_string_token2, 3100),
     (aux_sym_bool_literal_with_string_token3, 3100), (sym_s_byte_char_str, 3102),
     (sym_d_byte_char_str, 3102), (aux_sym_time_token1, 3102), (anon_sym_PLUS, 3100),
     (anon_sym_DASH, 3100), (aux_sym_ltime_token1, 3102), (aux_sym_tod_token1, 3102),
     (aux_sym_ltod_token1, 3102), (aux_sym_short_date_token1, 3102),
     (aux_sym_long_date_token1, 3102), (aux_sym_short_date_and_time_token1, 3102),
     (aux_sym_long_date_and_time_token1, 3102), (aux_sym_sign_int_type_name_token1, 3100),
     (aux_sym_sign_int_type_name_token2, 3100), (aux_sym_sign_int_type_name_token3, 3100),
     (aux_sym_sign_int_type_name_token4, 3100), (aux_sym_unsign_int_type_name_token1, 3100),
     (aux_sym_unsign_int_type_name_token2, 3100), (aux_sym_unsign_int_type_name_token3, 3100),
     (aux_sym_unsign_int_type_name_token4, 3100), (aux_sym_real_type_name_token1, 3100),
     (aux_sym_real_type_name_token2, 3100), (aux_sym_string_name_token1, 3100),
     (aux_sym_char_name_token1, 3100), (aux_sym_multibits_type_name_token1, 3100),
     (aux_sym_multibits_type_name_token2, 3100), (aux_sym_multibits_type_name_token3, 3100),
     (aux_sym_multibits_type_name_token4, 3100), (anon_sym_SEMI, 3102), (anon_sym_PERCENT, 3102),
     (anon_sym_STAR, 3100), (aux_sym_ref_value_token1, 3100), (aux_sym_ref_addr_token1, 3100),
     (anon_sym_DOT_DOT_DOT, 3102), (aux_sym_method_decl_token1, 3100), (anon_sym_SLASH, 3100),
     (anon_sym_STAR_STAR, 3102), (anon_sym_AMP, 3102), (anon_sym_LT_GT, 3102), (anon_sym_LT, 3100),
     (anon_sym_GT, 3100), (anon_sym_LT_EQ, 3102), (anon_sym_GT_EQ, 3102),
     (aux_sym_or_operator_token1, 3100), (aux_sym_xor_operator_token1, 3100),
     (aux_sym_and_operator_token1, 3100), (aux_sym_mult_token1, 3100), (aux_sym_unary_token1, 3100),
     (aux_sym__stmt_token1, 3100), (aux_sym__stmt_token2, 3100), (aux_sym__stmt_token3, 3100),
     (aux_sym_if_stmt_token1, 3100), (aux_sym_if_stmt_token3, 3100),
     (aux_sym_case_stmt_token1, 3100), (aux_sym_case_stmt_token2, 3100),
     (aux_sym_for_stmt_token1, 3100), (aux_sym_while_stmt_token1, 3100),
     (aux_sym_repeat_stmt_token1, 3100), (aux_sym_raise_stmt_token1, 3100),
     (aux_sym_try_stmt_token1, 3100), (aux_sym_try_stmt_token2, 3100),
     (aux_sym_catch_clause_token1, 3100), (aux_sym_finally_clause_token1, 3100),
     (sym_c_style_comment, 3), (sym_pascal_style_comment, 3), (sym_pragma, 3),
     (sym__minus_before_base, 3102), (sym__plus_before_base, 3102)]"

lemma ts_parse_row_1204_scan: "row_scan tokens_2_1 0 ts_parse_row_1204 = Some (Suc (Suc (Suc (Suc (Suc (Suc 0))))))"
  unfolding ts_parse_row_1204_def by simp

text \<open>Lines 187464 to 187554.\<close>

definition ts_parse_row_1205 :: parse_row where
  "ts_parse_row_1205 =
    [(sym_identifier, 3104), (anon_sym_EQ, 3106),
     (aux_sym_ERR_unexpected_this_in_path_token1, 3104),
     (aux_sym_ERR_unexpected_super_in_path_token1, 3104), (sym_line_comment, 3),
     (anon_sym_LBRACE, 3104), (anon_sym_LPAREN, 3106), (aux_sym_test_pragma_token1, 3106),
     (aux_sym_once_pragma_token1, 3106), (aux_sym_must_call_pragma_token1, 3106),
     (aux_sym_export_pragma_token1, 3106), (sym_unsigned_int, 3104),
     (sym__explicit_signed_int, 3104), (sym_binary_int, 3106), (sym_octal_int, 3106),
     (sym_hex_int, 3106), (sym__explicit_signed_real, 3106), (sym_real_value, 3106),
     (aux_sym_bool_literal_with_string_token1, 3106),
     (aux_sym_bool_literal_with_string_token2, 3104),
     (aux_sym_bool_literal_with_string_token3, 3104), (sym_s_byte_char_str, 3106),
     (sym_d_byte_char_str, 3106), (aux_sym_time_token1, 3106), (anon_sym_PLUS, 3104),
     (anon_sym_DASH, 3104), (aux_sym_ltime_token1, 3106), (aux_sym_tod_token1, 3106),
     (aux_sym_ltod_token1, 3106), (aux_sym_short_date_token1, 3106),
     (aux_sym_long_date_token1, 3106), (aux_sym_short_date_and_time_token1, 3106),
     (aux_sym_long_date_and_time_token1, 3106), (aux_sym_sign_int_type_name_token1, 3104),
     (aux_sym_sign_int_type_name_token2, 3104), (aux_sym_sign_int_type_name_token3, 3104),
     (aux_sym_sign_int_type_name_token4, 3104), (aux_sym_unsign_int_type_name_token1, 3104),
     (aux_sym_unsign_int_type_name_token2, 3104), (aux_sym_unsign_int_type_name_token3, 3104),
     (aux_sym_unsign_int_type_name_token4, 3104), (aux_sym_real_type_name_token1, 3104),
     (aux_sym_real_type_name_token2, 3104), (aux_sym_string_name_token1, 3104),
     (aux_sym_char_name_token1, 3104), (aux_sym_multibits_type_name_token1, 3104),
     (aux_sym_multibits_type_name_token2, 3104), (aux_sym_multibits_type_name_token3, 3104),
     (aux_sym_multibits_type_name_token4, 3104), (anon_sym_SEMI, 3106), (anon_sym_PERCENT, 3106),
     (anon_sym_STAR, 3104), (aux_sym_ref_value_token1, 3104), (aux_sym_ref_addr_token1, 3104),
     (anon_sym_DOT_DOT_DOT, 3106), (aux_sym_method_decl_token1, 3104), (anon_sym_SLASH, 3104),
     (anon_sym_STAR_STAR, 3106), (anon_sym_AMP, 3106), (anon_sym_LT_GT, 3106), (anon_sym_LT, 3104),
     (anon_sym_GT, 3104), (anon_sym_LT_EQ, 3106), (anon_sym_GT_EQ, 3106),
     (aux_sym_or_operator_token1, 3104), (aux_sym_xor_operator_token1, 3104),
     (aux_sym_and_operator_token1, 3104), (aux_sym_mult_token1, 3104), (aux_sym_unary_token1, 3104),
     (aux_sym__stmt_token1, 3104), (aux_sym__stmt_token2, 3104), (aux_sym__stmt_token3, 3104),
     (aux_sym_if_stmt_token1, 3104), (aux_sym_if_stmt_token3, 3104),
     (aux_sym_case_stmt_token1, 3104), (aux_sym_case_stmt_token2, 3104),
     (aux_sym_for_stmt_token1, 3104), (aux_sym_while_stmt_token1, 3104),
     (aux_sym_repeat_stmt_token1, 3104), (aux_sym_raise_stmt_token1, 3104),
     (aux_sym_try_stmt_token1, 3104), (aux_sym_try_stmt_token2, 3104),
     (aux_sym_catch_clause_token1, 3104), (aux_sym_finally_clause_token1, 3104),
     (sym_c_style_comment, 3), (sym_pascal_style_comment, 3), (sym_pragma, 3),
     (sym__minus_before_base, 3106), (sym__plus_before_base, 3106)]"

lemma ts_parse_row_1205_scan: "row_scan tokens_2_1 0 ts_parse_row_1205 = Some (Suc (Suc (Suc (Suc (Suc (Suc 0))))))"
  unfolding ts_parse_row_1205_def by simp

text \<open>Lines 187555 to 187645.\<close>

definition ts_parse_row_1206 :: parse_row where
  "ts_parse_row_1206 =
    [(sym_identifier, 3108), (anon_sym_EQ, 3110),
     (aux_sym_ERR_unexpected_this_in_path_token1, 3108),
     (aux_sym_ERR_unexpected_super_in_path_token1, 3108), (sym_line_comment, 3),
     (anon_sym_LBRACE, 3108), (anon_sym_LPAREN, 3110), (aux_sym_test_pragma_token1, 3110),
     (aux_sym_once_pragma_token1, 3110), (aux_sym_must_call_pragma_token1, 3110),
     (aux_sym_export_pragma_token1, 3110), (sym_unsigned_int, 3108),
     (sym__explicit_signed_int, 3108), (sym_binary_int, 3110), (sym_octal_int, 3110),
     (sym_hex_int, 3110), (sym__explicit_signed_real, 3110), (sym_real_value, 3110),
     (aux_sym_bool_literal_with_string_token1, 3110),
     (aux_sym_bool_literal_with_string_token2, 3108),
     (aux_sym_bool_literal_with_string_token3, 3108), (sym_s_byte_char_str, 3110),
     (sym_d_byte_char_str, 3110), (aux_sym_time_token1, 3110), (anon_sym_PLUS, 3108),
     (anon_sym_DASH, 3108), (aux_sym_ltime_token1, 3110), (aux_sym_tod_token1, 3110),
     (aux_sym_ltod_token1, 3110), (aux_sym_short_date_token1, 3110),
     (aux_sym_long_date_token1, 3110), (aux_sym_short_date_and_time_token1, 3110),
     (aux_sym_long_date_and_time_token1, 3110), (aux_sym_sign_int_type_name_token1, 3108),
     (aux_sym_sign_int_type_name_token2, 3108), (aux_sym_sign_int_type_name_token3, 3108),
     (aux_sym_sign_int_type_name_token4, 3108), (aux_sym_unsign_int_type_name_token1, 3108),
     (aux_sym_unsign_int_type_name_token2, 3108), (aux_sym_unsign_int_type_name_token3, 3108),
     (aux_sym_unsign_int_type_name_token4, 3108), (aux_sym_real_type_name_token1, 3108),
     (aux_sym_real_type_name_token2, 3108), (aux_sym_string_name_token1, 3108),
     (aux_sym_char_name_token1, 3108), (aux_sym_multibits_type_name_token1, 3108),
     (aux_sym_multibits_type_name_token2, 3108), (aux_sym_multibits_type_name_token3, 3108),
     (aux_sym_multibits_type_name_token4, 3108), (anon_sym_SEMI, 3110), (anon_sym_PERCENT, 3110),
     (anon_sym_STAR, 3108), (aux_sym_ref_value_token1, 3108), (aux_sym_ref_addr_token1, 3108),
     (anon_sym_DOT_DOT_DOT, 3110), (aux_sym_method_decl_token1, 3108), (anon_sym_SLASH, 3108),
     (anon_sym_STAR_STAR, 3110), (anon_sym_AMP, 3110), (anon_sym_LT_GT, 3110), (anon_sym_LT, 3108),
     (anon_sym_GT, 3108), (anon_sym_LT_EQ, 3110), (anon_sym_GT_EQ, 3110),
     (aux_sym_or_operator_token1, 3108), (aux_sym_xor_operator_token1, 3108),
     (aux_sym_and_operator_token1, 3108), (aux_sym_mult_token1, 3108), (aux_sym_unary_token1, 3108),
     (aux_sym__stmt_token1, 3108), (aux_sym__stmt_token2, 3108), (aux_sym__stmt_token3, 3108),
     (aux_sym_if_stmt_token1, 3108), (aux_sym_if_stmt_token3, 3108),
     (aux_sym_case_stmt_token1, 3108), (aux_sym_case_stmt_token2, 3108),
     (aux_sym_for_stmt_token1, 3108), (aux_sym_while_stmt_token1, 3108),
     (aux_sym_repeat_stmt_token1, 3108), (aux_sym_raise_stmt_token1, 3108),
     (aux_sym_try_stmt_token1, 3108), (aux_sym_try_stmt_token2, 3108),
     (aux_sym_catch_clause_token1, 3108), (aux_sym_finally_clause_token1, 3108),
     (sym_c_style_comment, 3), (sym_pascal_style_comment, 3), (sym_pragma, 3),
     (sym__minus_before_base, 3110), (sym__plus_before_base, 3110)]"

lemma ts_parse_row_1206_scan: "row_scan tokens_2_1 0 ts_parse_row_1206 = Some (Suc (Suc (Suc (Suc (Suc (Suc 0))))))"
  unfolding ts_parse_row_1206_def by simp

text \<open>Lines 187646 to 187736.\<close>

definition ts_parse_row_1207 :: parse_row where
  "ts_parse_row_1207 =
    [(sym_identifier, 3112), (anon_sym_EQ, 3114),
     (aux_sym_ERR_unexpected_this_in_path_token1, 3112),
     (aux_sym_ERR_unexpected_super_in_path_token1, 3112), (sym_line_comment, 3),
     (anon_sym_LBRACE, 3112), (anon_sym_LPAREN, 3114), (aux_sym_test_pragma_token1, 3114),
     (aux_sym_once_pragma_token1, 3114), (aux_sym_must_call_pragma_token1, 3114),
     (aux_sym_export_pragma_token1, 3114), (sym_unsigned_int, 3112),
     (sym__explicit_signed_int, 3112), (sym_binary_int, 3114), (sym_octal_int, 3114),
     (sym_hex_int, 3114), (sym__explicit_signed_real, 3114), (sym_real_value, 3114),
     (aux_sym_bool_literal_with_string_token1, 3114),
     (aux_sym_bool_literal_with_string_token2, 3112),
     (aux_sym_bool_literal_with_string_token3, 3112), (sym_s_byte_char_str, 3114),
     (sym_d_byte_char_str, 3114), (aux_sym_time_token1, 3114), (anon_sym_PLUS, 3112),
     (anon_sym_DASH, 3112), (aux_sym_ltime_token1, 3114), (aux_sym_tod_token1, 3114),
     (aux_sym_ltod_token1, 3114), (aux_sym_short_date_token1, 3114),
     (aux_sym_long_date_token1, 3114), (aux_sym_short_date_and_time_token1, 3114),
     (aux_sym_long_date_and_time_token1, 3114), (aux_sym_sign_int_type_name_token1, 3112),
     (aux_sym_sign_int_type_name_token2, 3112), (aux_sym_sign_int_type_name_token3, 3112),
     (aux_sym_sign_int_type_name_token4, 3112), (aux_sym_unsign_int_type_name_token1, 3112),
     (aux_sym_unsign_int_type_name_token2, 3112), (aux_sym_unsign_int_type_name_token3, 3112),
     (aux_sym_unsign_int_type_name_token4, 3112), (aux_sym_real_type_name_token1, 3112),
     (aux_sym_real_type_name_token2, 3112), (aux_sym_string_name_token1, 3112),
     (aux_sym_char_name_token1, 3112), (aux_sym_multibits_type_name_token1, 3112),
     (aux_sym_multibits_type_name_token2, 3112), (aux_sym_multibits_type_name_token3, 3112),
     (aux_sym_multibits_type_name_token4, 3112), (anon_sym_SEMI, 3114), (anon_sym_PERCENT, 3114),
     (anon_sym_STAR, 3112), (aux_sym_ref_value_token1, 3112), (aux_sym_ref_addr_token1, 3112),
     (anon_sym_DOT_DOT_DOT, 3114), (aux_sym_method_decl_token1, 3112), (anon_sym_SLASH, 3112),
     (anon_sym_STAR_STAR, 3114), (anon_sym_AMP, 3114), (anon_sym_LT_GT, 3114), (anon_sym_LT, 3112),
     (anon_sym_GT, 3112), (anon_sym_LT_EQ, 3114), (anon_sym_GT_EQ, 3114),
     (aux_sym_or_operator_token1, 3112), (aux_sym_xor_operator_token1, 3112),
     (aux_sym_and_operator_token1, 3112), (aux_sym_mult_token1, 3112), (aux_sym_unary_token1, 3112),
     (aux_sym__stmt_token1, 3112), (aux_sym__stmt_token2, 3112), (aux_sym__stmt_token3, 3112),
     (aux_sym_if_stmt_token1, 3112), (aux_sym_if_stmt_token3, 3112),
     (aux_sym_case_stmt_token1, 3112), (aux_sym_case_stmt_token2, 3112),
     (aux_sym_for_stmt_token1, 3112), (aux_sym_while_stmt_token1, 3112),
     (aux_sym_repeat_stmt_token1, 3112), (aux_sym_raise_stmt_token1, 3112),
     (aux_sym_try_stmt_token1, 3112), (aux_sym_try_stmt_token2, 3112),
     (aux_sym_catch_clause_token1, 3112), (aux_sym_finally_clause_token1, 3112),
     (sym_c_style_comment, 3), (sym_pascal_style_comment, 3), (sym_pragma, 3),
     (sym__minus_before_base, 3114), (sym__plus_before_base, 3114)]"

lemma ts_parse_row_1207_scan: "row_scan tokens_2_1 0 ts_parse_row_1207 = Some (Suc (Suc (Suc (Suc (Suc (Suc 0))))))"
  unfolding ts_parse_row_1207_def by simp

text \<open>Lines 187737 to 187827.\<close>

definition ts_parse_row_1208 :: parse_row where
  "ts_parse_row_1208 =
    [(sym_identifier, 3116), (anon_sym_EQ, 3118),
     (aux_sym_ERR_unexpected_this_in_path_token1, 3116),
     (aux_sym_ERR_unexpected_super_in_path_token1, 3116), (sym_line_comment, 3),
     (anon_sym_LBRACE, 3116), (anon_sym_LPAREN, 3118), (aux_sym_test_pragma_token1, 3118),
     (aux_sym_once_pragma_token1, 3118), (aux_sym_must_call_pragma_token1, 3118),
     (aux_sym_export_pragma_token1, 3118), (sym_unsigned_int, 3116),
     (sym__explicit_signed_int, 3116), (sym_binary_int, 3118), (sym_octal_int, 3118),
     (sym_hex_int, 3118), (sym__explicit_signed_real, 3118), (sym_real_value, 3118),
     (aux_sym_bool_literal_with_string_token1, 3118),
     (aux_sym_bool_literal_with_string_token2, 3116),
     (aux_sym_bool_literal_with_string_token3, 3116), (sym_s_byte_char_str, 3118),
     (sym_d_byte_char_str, 3118), (aux_sym_time_token1, 3118), (anon_sym_PLUS, 3116),
     (anon_sym_DASH, 3116), (aux_sym_ltime_token1, 3118), (aux_sym_tod_token1, 3118),
     (aux_sym_ltod_token1, 3118), (aux_sym_short_date_token1, 3118),
     (aux_sym_long_date_token1, 3118), (aux_sym_short_date_and_time_token1, 3118),
     (aux_sym_long_date_and_time_token1, 3118), (aux_sym_sign_int_type_name_token1, 3116),
     (aux_sym_sign_int_type_name_token2, 3116), (aux_sym_sign_int_type_name_token3, 3116),
     (aux_sym_sign_int_type_name_token4, 3116), (aux_sym_unsign_int_type_name_token1, 3116),
     (aux_sym_unsign_int_type_name_token2, 3116), (aux_sym_unsign_int_type_name_token3, 3116),
     (aux_sym_unsign_int_type_name_token4, 3116), (aux_sym_real_type_name_token1, 3116),
     (aux_sym_real_type_name_token2, 3116), (aux_sym_string_name_token1, 3116),
     (aux_sym_char_name_token1, 3116), (aux_sym_multibits_type_name_token1, 3116),
     (aux_sym_multibits_type_name_token2, 3116), (aux_sym_multibits_type_name_token3, 3116),
     (aux_sym_multibits_type_name_token4, 3116), (anon_sym_SEMI, 3118), (anon_sym_PERCENT, 3118),
     (anon_sym_STAR, 3116), (aux_sym_ref_value_token1, 3116), (aux_sym_ref_addr_token1, 3116),
     (anon_sym_DOT_DOT_DOT, 3118), (aux_sym_method_decl_token1, 3116), (anon_sym_SLASH, 3116),
     (anon_sym_STAR_STAR, 3118), (anon_sym_AMP, 3118), (anon_sym_LT_GT, 3118), (anon_sym_LT, 3116),
     (anon_sym_GT, 3116), (anon_sym_LT_EQ, 3118), (anon_sym_GT_EQ, 3118),
     (aux_sym_or_operator_token1, 3116), (aux_sym_xor_operator_token1, 3116),
     (aux_sym_and_operator_token1, 3116), (aux_sym_mult_token1, 3116), (aux_sym_unary_token1, 3116),
     (aux_sym__stmt_token1, 3116), (aux_sym__stmt_token2, 3116), (aux_sym__stmt_token3, 3116),
     (aux_sym_if_stmt_token1, 3116), (aux_sym_if_stmt_token3, 3116),
     (aux_sym_case_stmt_token1, 3116), (aux_sym_case_stmt_token2, 3116),
     (aux_sym_for_stmt_token1, 3116), (aux_sym_while_stmt_token1, 3116),
     (aux_sym_repeat_stmt_token1, 3116), (aux_sym_raise_stmt_token1, 3116),
     (aux_sym_try_stmt_token1, 3116), (aux_sym_try_stmt_token2, 3116),
     (aux_sym_catch_clause_token1, 3116), (aux_sym_finally_clause_token1, 3116),
     (sym_c_style_comment, 3), (sym_pascal_style_comment, 3), (sym_pragma, 3),
     (sym__minus_before_base, 3118), (sym__plus_before_base, 3118)]"

lemma ts_parse_row_1208_scan: "row_scan tokens_2_1 0 ts_parse_row_1208 = Some (Suc (Suc (Suc (Suc (Suc (Suc 0))))))"
  unfolding ts_parse_row_1208_def by simp

text \<open>Lines 187828 to 187918.\<close>

definition ts_parse_row_1209 :: parse_row where
  "ts_parse_row_1209 =
    [(sym_identifier, 3120), (anon_sym_EQ, 3122),
     (aux_sym_ERR_unexpected_this_in_path_token1, 3120),
     (aux_sym_ERR_unexpected_super_in_path_token1, 3120), (sym_line_comment, 3),
     (anon_sym_LBRACE, 3120), (anon_sym_LPAREN, 3122), (aux_sym_test_pragma_token1, 3122),
     (aux_sym_once_pragma_token1, 3122), (aux_sym_must_call_pragma_token1, 3122),
     (aux_sym_export_pragma_token1, 3122), (sym_unsigned_int, 3120),
     (sym__explicit_signed_int, 3120), (sym_binary_int, 3122), (sym_octal_int, 3122),
     (sym_hex_int, 3122), (sym__explicit_signed_real, 3122), (sym_real_value, 3122),
     (aux_sym_bool_literal_with_string_token1, 3122),
     (aux_sym_bool_literal_with_string_token2, 3120),
     (aux_sym_bool_literal_with_string_token3, 3120), (sym_s_byte_char_str, 3122),
     (sym_d_byte_char_str, 3122), (aux_sym_time_token1, 3122), (anon_sym_PLUS, 3120),
     (anon_sym_DASH, 3120), (aux_sym_ltime_token1, 3122), (aux_sym_tod_token1, 3122),
     (aux_sym_ltod_token1, 3122), (aux_sym_short_date_token1, 3122),
     (aux_sym_long_date_token1, 3122), (aux_sym_short_date_and_time_token1, 3122),
     (aux_sym_long_date_and_time_token1, 3122), (aux_sym_sign_int_type_name_token1, 3120),
     (aux_sym_sign_int_type_name_token2, 3120), (aux_sym_sign_int_type_name_token3, 3120),
     (aux_sym_sign_int_type_name_token4, 3120), (aux_sym_unsign_int_type_name_token1, 3120),
     (aux_sym_unsign_int_type_name_token2, 3120), (aux_sym_unsign_int_type_name_token3, 3120),
     (aux_sym_unsign_int_type_name_token4, 3120), (aux_sym_real_type_name_token1, 3120),
     (aux_sym_real_type_name_token2, 3120), (aux_sym_string_name_token1, 3120),
     (aux_sym_char_name_token1, 3120), (aux_sym_multibits_type_name_token1, 3120),
     (aux_sym_multibits_type_name_token2, 3120), (aux_sym_multibits_type_name_token3, 3120),
     (aux_sym_multibits_type_name_token4, 3120), (anon_sym_SEMI, 3122), (anon_sym_PERCENT, 3122),
     (anon_sym_STAR, 3120), (aux_sym_ref_value_token1, 3120), (aux_sym_ref_addr_token1, 3120),
     (anon_sym_DOT_DOT_DOT, 3122), (aux_sym_method_decl_token1, 3120), (anon_sym_SLASH, 3120),
     (anon_sym_STAR_STAR, 3122), (anon_sym_AMP, 3122), (anon_sym_LT_GT, 3122), (anon_sym_LT, 3120),
     (anon_sym_GT, 3120), (anon_sym_LT_EQ, 3122), (anon_sym_GT_EQ, 3122),
     (aux_sym_or_operator_token1, 3120), (aux_sym_xor_operator_token1, 3120),
     (aux_sym_and_operator_token1, 3120), (aux_sym_mult_token1, 3120), (aux_sym_unary_token1, 3120),
     (aux_sym__stmt_token1, 3120), (aux_sym__stmt_token2, 3120), (aux_sym__stmt_token3, 3120),
     (aux_sym_if_stmt_token1, 3120), (aux_sym_if_stmt_token3, 3120),
     (aux_sym_case_stmt_token1, 3120), (aux_sym_case_stmt_token2, 3120),
     (aux_sym_for_stmt_token1, 3120), (aux_sym_while_stmt_token1, 3120),
     (aux_sym_repeat_stmt_token1, 3120), (aux_sym_raise_stmt_token1, 3120),
     (aux_sym_try_stmt_token1, 3120), (aux_sym_try_stmt_token2, 3120),
     (aux_sym_catch_clause_token1, 3120), (aux_sym_finally_clause_token1, 3120),
     (sym_c_style_comment, 3), (sym_pascal_style_comment, 3), (sym_pragma, 3),
     (sym__minus_before_base, 3122), (sym__plus_before_base, 3122)]"

lemma ts_parse_row_1209_scan: "row_scan tokens_2_1 0 ts_parse_row_1209 = Some (Suc (Suc (Suc (Suc (Suc (Suc 0))))))"
  unfolding ts_parse_row_1209_def by simp

text \<open>Lines 187919 to 188009.\<close>

definition ts_parse_row_1210 :: parse_row where
  "ts_parse_row_1210 =
    [(sym_identifier, 3124), (anon_sym_EQ, 3126),
     (aux_sym_ERR_unexpected_this_in_path_token1, 3124),
     (aux_sym_ERR_unexpected_super_in_path_token1, 3124), (sym_line_comment, 3),
     (anon_sym_LBRACE, 3124), (anon_sym_LPAREN, 3126), (aux_sym_test_pragma_token1, 3126),
     (aux_sym_once_pragma_token1, 3126), (aux_sym_must_call_pragma_token1, 3126),
     (aux_sym_export_pragma_token1, 3126), (sym_unsigned_int, 3124),
     (sym__explicit_signed_int, 3124), (sym_binary_int, 3126), (sym_octal_int, 3126),
     (sym_hex_int, 3126), (sym__explicit_signed_real, 3126), (sym_real_value, 3126),
     (aux_sym_bool_literal_with_string_token1, 3126),
     (aux_sym_bool_literal_with_string_token2, 3124),
     (aux_sym_bool_literal_with_string_token3, 3124), (sym_s_byte_char_str, 3126),
     (sym_d_byte_char_str, 3126), (aux_sym_time_token1, 3126), (anon_sym_PLUS, 3124),
     (anon_sym_DASH, 3124), (aux_sym_ltime_token1, 3126), (aux_sym_tod_token1, 3126),
     (aux_sym_ltod_token1, 3126), (aux_sym_short_date_token1, 3126),
     (aux_sym_long_date_token1, 3126), (aux_sym_short_date_and_time_token1, 3126),
     (aux_sym_long_date_and_time_token1, 3126), (aux_sym_sign_int_type_name_token1, 3124),
     (aux_sym_sign_int_type_name_token2, 3124), (aux_sym_sign_int_type_name_token3, 3124),
     (aux_sym_sign_int_type_name_token4, 3124), (aux_sym_unsign_int_type_name_token1, 3124),
     (aux_sym_unsign_int_type_name_token2, 3124), (aux_sym_unsign_int_type_name_token3, 3124),
     (aux_sym_unsign_int_type_name_token4, 3124), (aux_sym_real_type_name_token1, 3124),
     (aux_sym_real_type_name_token2, 3124), (aux_sym_string_name_token1, 3124),
     (aux_sym_char_name_token1, 3124), (aux_sym_multibits_type_name_token1, 3124),
     (aux_sym_multibits_type_name_token2, 3124), (aux_sym_multibits_type_name_token3, 3124),
     (aux_sym_multibits_type_name_token4, 3124), (anon_sym_SEMI, 3126), (anon_sym_PERCENT, 3126),
     (anon_sym_STAR, 3124), (aux_sym_ref_value_token1, 3124), (aux_sym_ref_addr_token1, 3124),
     (anon_sym_DOT_DOT_DOT, 3126), (aux_sym_method_decl_token1, 3124), (anon_sym_SLASH, 3124),
     (anon_sym_STAR_STAR, 3126), (anon_sym_AMP, 3126), (anon_sym_LT_GT, 3126), (anon_sym_LT, 3124),
     (anon_sym_GT, 3124), (anon_sym_LT_EQ, 3126), (anon_sym_GT_EQ, 3126),
     (aux_sym_or_operator_token1, 3124), (aux_sym_xor_operator_token1, 3124),
     (aux_sym_and_operator_token1, 3124), (aux_sym_mult_token1, 3124), (aux_sym_unary_token1, 3124),
     (aux_sym__stmt_token1, 3124), (aux_sym__stmt_token2, 3124), (aux_sym__stmt_token3, 3124),
     (aux_sym_if_stmt_token1, 3124), (aux_sym_if_stmt_token3, 3124),
     (aux_sym_case_stmt_token1, 3124), (aux_sym_case_stmt_token2, 3124),
     (aux_sym_for_stmt_token1, 3124), (aux_sym_while_stmt_token1, 3124),
     (aux_sym_repeat_stmt_token1, 3124), (aux_sym_raise_stmt_token1, 3124),
     (aux_sym_try_stmt_token1, 3124), (aux_sym_try_stmt_token2, 3124),
     (aux_sym_catch_clause_token1, 3124), (aux_sym_finally_clause_token1, 3124),
     (sym_c_style_comment, 3), (sym_pascal_style_comment, 3), (sym_pragma, 3),
     (sym__minus_before_base, 3126), (sym__plus_before_base, 3126)]"

lemma ts_parse_row_1210_scan: "row_scan tokens_2_1 0 ts_parse_row_1210 = Some (Suc (Suc (Suc (Suc (Suc (Suc 0))))))"
  unfolding ts_parse_row_1210_def by simp

text \<open>Lines 188010 to 188100.\<close>

definition ts_parse_row_1211 :: parse_row where
  "ts_parse_row_1211 =
    [(sym_identifier, 3128), (anon_sym_EQ, 3130),
     (aux_sym_ERR_unexpected_this_in_path_token1, 3128),
     (aux_sym_ERR_unexpected_super_in_path_token1, 3128), (sym_line_comment, 3),
     (anon_sym_LBRACE, 3128), (anon_sym_LPAREN, 3130), (aux_sym_test_pragma_token1, 3130),
     (aux_sym_once_pragma_token1, 3130), (aux_sym_must_call_pragma_token1, 3130),
     (aux_sym_export_pragma_token1, 3130), (sym_unsigned_int, 3128),
     (sym__explicit_signed_int, 3128), (sym_binary_int, 3130), (sym_octal_int, 3130),
     (sym_hex_int, 3130), (sym__explicit_signed_real, 3130), (sym_real_value, 3130),
     (aux_sym_bool_literal_with_string_token1, 3130),
     (aux_sym_bool_literal_with_string_token2, 3128),
     (aux_sym_bool_literal_with_string_token3, 3128), (sym_s_byte_char_str, 3130),
     (sym_d_byte_char_str, 3130), (aux_sym_time_token1, 3130), (anon_sym_PLUS, 3128),
     (anon_sym_DASH, 3128), (aux_sym_ltime_token1, 3130), (aux_sym_tod_token1, 3130),
     (aux_sym_ltod_token1, 3130), (aux_sym_short_date_token1, 3130),
     (aux_sym_long_date_token1, 3130), (aux_sym_short_date_and_time_token1, 3130),
     (aux_sym_long_date_and_time_token1, 3130), (aux_sym_sign_int_type_name_token1, 3128),
     (aux_sym_sign_int_type_name_token2, 3128), (aux_sym_sign_int_type_name_token3, 3128),
     (aux_sym_sign_int_type_name_token4, 3128), (aux_sym_unsign_int_type_name_token1, 3128),
     (aux_sym_unsign_int_type_name_token2, 3128), (aux_sym_unsign_int_type_name_token3, 3128),
     (aux_sym_unsign_int_type_name_token4, 3128), (aux_sym_real_type_name_token1, 3128),
     (aux_sym_real_type_name_token2, 3128), (aux_sym_string_name_token1, 3128),
     (aux_sym_char_name_token1, 3128), (aux_sym_multibits_type_name_token1, 3128),
     (aux_sym_multibits_type_name_token2, 3128), (aux_sym_multibits_type_name_token3, 3128),
     (aux_sym_multibits_type_name_token4, 3128), (anon_sym_SEMI, 3130), (anon_sym_PERCENT, 3130),
     (anon_sym_STAR, 3128), (aux_sym_ref_value_token1, 3128), (aux_sym_ref_addr_token1, 3128),
     (anon_sym_DOT_DOT_DOT, 3130), (aux_sym_method_decl_token1, 3128), (anon_sym_SLASH, 3128),
     (anon_sym_STAR_STAR, 3130), (anon_sym_AMP, 3130), (anon_sym_LT_GT, 3130), (anon_sym_LT, 3128),
     (anon_sym_GT, 3128), (anon_sym_LT_EQ, 3130), (anon_sym_GT_EQ, 3130),
     (aux_sym_or_operator_token1, 3128), (aux_sym_xor_operator_token1, 3128),
     (aux_sym_and_operator_token1, 3128), (aux_sym_mult_token1, 3128), (aux_sym_unary_token1, 3128),
     (aux_sym__stmt_token1, 3128), (aux_sym__stmt_token2, 3128), (aux_sym__stmt_token3, 3128),
     (aux_sym_if_stmt_token1, 3128), (aux_sym_if_stmt_token3, 3128),
     (aux_sym_case_stmt_token1, 3128), (aux_sym_case_stmt_token2, 3128),
     (aux_sym_for_stmt_token1, 3128), (aux_sym_while_stmt_token1, 3128),
     (aux_sym_repeat_stmt_token1, 3128), (aux_sym_raise_stmt_token1, 3128),
     (aux_sym_try_stmt_token1, 3128), (aux_sym_try_stmt_token2, 3128),
     (aux_sym_catch_clause_token1, 3128), (aux_sym_finally_clause_token1, 3128),
     (sym_c_style_comment, 3), (sym_pascal_style_comment, 3), (sym_pragma, 3),
     (sym__minus_before_base, 3130), (sym__plus_before_base, 3130)]"

lemma ts_parse_row_1211_scan: "row_scan tokens_2_1 0 ts_parse_row_1211 = Some (Suc (Suc (Suc (Suc (Suc (Suc 0))))))"
  unfolding ts_parse_row_1211_def by simp

text \<open>Lines 188101 to 188191.\<close>

definition ts_parse_row_1212 :: parse_row where
  "ts_parse_row_1212 =
    [(sym_identifier, 3132), (anon_sym_EQ, 3134),
     (aux_sym_ERR_unexpected_this_in_path_token1, 3132),
     (aux_sym_ERR_unexpected_super_in_path_token1, 3132), (sym_line_comment, 3),
     (anon_sym_LBRACE, 3132), (anon_sym_LPAREN, 3134), (aux_sym_test_pragma_token1, 3134),
     (aux_sym_once_pragma_token1, 3134), (aux_sym_must_call_pragma_token1, 3134),
     (aux_sym_export_pragma_token1, 3134), (sym_unsigned_int, 3132),
     (sym__explicit_signed_int, 3132), (sym_binary_int, 3134), (sym_octal_int, 3134),
     (sym_hex_int, 3134), (sym__explicit_signed_real, 3134), (sym_real_value, 3134),
     (aux_sym_bool_literal_with_string_token1, 3134),
     (aux_sym_bool_literal_with_string_token2, 3132),
     (aux_sym_bool_literal_with_string_token3, 3132), (sym_s_byte_char_str, 3134),
     (sym_d_byte_char_str, 3134), (aux_sym_time_token1, 3134), (anon_sym_PLUS, 3132),
     (anon_sym_DASH, 3132), (aux_sym_ltime_token1, 3134), (aux_sym_tod_token1, 3134),
     (aux_sym_ltod_token1, 3134), (aux_sym_short_date_token1, 3134),
     (aux_sym_long_date_token1, 3134), (aux_sym_short_date_and_time_token1, 3134),
     (aux_sym_long_date_and_time_token1, 3134), (aux_sym_sign_int_type_name_token1, 3132),
     (aux_sym_sign_int_type_name_token2, 3132), (aux_sym_sign_int_type_name_token3, 3132),
     (aux_sym_sign_int_type_name_token4, 3132), (aux_sym_unsign_int_type_name_token1, 3132),
     (aux_sym_unsign_int_type_name_token2, 3132), (aux_sym_unsign_int_type_name_token3, 3132),
     (aux_sym_unsign_int_type_name_token4, 3132), (aux_sym_real_type_name_token1, 3132),
     (aux_sym_real_type_name_token2, 3132), (aux_sym_string_name_token1, 3132),
     (aux_sym_char_name_token1, 3132), (aux_sym_multibits_type_name_token1, 3132),
     (aux_sym_multibits_type_name_token2, 3132), (aux_sym_multibits_type_name_token3, 3132),
     (aux_sym_multibits_type_name_token4, 3132), (anon_sym_SEMI, 3134), (anon_sym_PERCENT, 3134),
     (anon_sym_STAR, 3132), (aux_sym_ref_value_token1, 3132), (aux_sym_ref_addr_token1, 3132),
     (anon_sym_DOT_DOT_DOT, 3134), (aux_sym_method_decl_token1, 3132), (anon_sym_SLASH, 3132),
     (anon_sym_STAR_STAR, 3134), (anon_sym_AMP, 3134), (anon_sym_LT_GT, 3134), (anon_sym_LT, 3132),
     (anon_sym_GT, 3132), (anon_sym_LT_EQ, 3134), (anon_sym_GT_EQ, 3134),
     (aux_sym_or_operator_token1, 3132), (aux_sym_xor_operator_token1, 3132),
     (aux_sym_and_operator_token1, 3132), (aux_sym_mult_token1, 3132), (aux_sym_unary_token1, 3132),
     (aux_sym__stmt_token1, 3132), (aux_sym__stmt_token2, 3132), (aux_sym__stmt_token3, 3132),
     (aux_sym_if_stmt_token1, 3132), (aux_sym_if_stmt_token3, 3132),
     (aux_sym_case_stmt_token1, 3132), (aux_sym_case_stmt_token2, 3132),
     (aux_sym_for_stmt_token1, 3132), (aux_sym_while_stmt_token1, 3132),
     (aux_sym_repeat_stmt_token1, 3132), (aux_sym_raise_stmt_token1, 3132),
     (aux_sym_try_stmt_token1, 3132), (aux_sym_try_stmt_token2, 3132),
     (aux_sym_catch_clause_token1, 3132), (aux_sym_finally_clause_token1, 3132),
     (sym_c_style_comment, 3), (sym_pascal_style_comment, 3), (sym_pragma, 3),
     (sym__minus_before_base, 3134), (sym__plus_before_base, 3134)]"

lemma ts_parse_row_1212_scan: "row_scan tokens_2_1 0 ts_parse_row_1212 = Some (Suc (Suc (Suc (Suc (Suc (Suc 0))))))"
  unfolding ts_parse_row_1212_def by simp

text \<open>Lines 188192 to 188282.\<close>

definition ts_parse_row_1213 :: parse_row where
  "ts_parse_row_1213 =
    [(sym_identifier, 3136), (anon_sym_EQ, 3138),
     (aux_sym_ERR_unexpected_this_in_path_token1, 3136),
     (aux_sym_ERR_unexpected_super_in_path_token1, 3136), (sym_line_comment, 3),
     (anon_sym_LBRACE, 3136), (anon_sym_LPAREN, 3138), (aux_sym_test_pragma_token1, 3138),
     (aux_sym_once_pragma_token1, 3138), (aux_sym_must_call_pragma_token1, 3138),
     (aux_sym_export_pragma_token1, 3138), (sym_unsigned_int, 3136),
     (sym__explicit_signed_int, 3136), (sym_binary_int, 3138), (sym_octal_int, 3138),
     (sym_hex_int, 3138), (sym__explicit_signed_real, 3138), (sym_real_value, 3138),
     (aux_sym_bool_literal_with_string_token1, 3138),
     (aux_sym_bool_literal_with_string_token2, 3136),
     (aux_sym_bool_literal_with_string_token3, 3136), (sym_s_byte_char_str, 3138),
     (sym_d_byte_char_str, 3138), (aux_sym_time_token1, 3138), (anon_sym_PLUS, 3136),
     (anon_sym_DASH, 3136), (aux_sym_ltime_token1, 3138), (aux_sym_tod_token1, 3138),
     (aux_sym_ltod_token1, 3138), (aux_sym_short_date_token1, 3138),
     (aux_sym_long_date_token1, 3138), (aux_sym_short_date_and_time_token1, 3138),
     (aux_sym_long_date_and_time_token1, 3138), (aux_sym_sign_int_type_name_token1, 3136),
     (aux_sym_sign_int_type_name_token2, 3136), (aux_sym_sign_int_type_name_token3, 3136),
     (aux_sym_sign_int_type_name_token4, 3136), (aux_sym_unsign_int_type_name_token1, 3136),
     (aux_sym_unsign_int_type_name_token2, 3136), (aux_sym_unsign_int_type_name_token3, 3136),
     (aux_sym_unsign_int_type_name_token4, 3136), (aux_sym_real_type_name_token1, 3136),
     (aux_sym_real_type_name_token2, 3136), (aux_sym_string_name_token1, 3136),
     (aux_sym_char_name_token1, 3136), (aux_sym_multibits_type_name_token1, 3136),
     (aux_sym_multibits_type_name_token2, 3136), (aux_sym_multibits_type_name_token3, 3136),
     (aux_sym_multibits_type_name_token4, 3136), (anon_sym_SEMI, 3138), (anon_sym_PERCENT, 3138),
     (anon_sym_STAR, 3136), (aux_sym_ref_value_token1, 3136), (aux_sym_ref_addr_token1, 3136),
     (anon_sym_DOT_DOT_DOT, 3138), (aux_sym_method_decl_token1, 3136), (anon_sym_SLASH, 3136),
     (anon_sym_STAR_STAR, 3138), (anon_sym_AMP, 3138), (anon_sym_LT_GT, 3138), (anon_sym_LT, 3136),
     (anon_sym_GT, 3136), (anon_sym_LT_EQ, 3138), (anon_sym_GT_EQ, 3138),
     (aux_sym_or_operator_token1, 3136), (aux_sym_xor_operator_token1, 3136),
     (aux_sym_and_operator_token1, 3136), (aux_sym_mult_token1, 3136), (aux_sym_unary_token1, 3136),
     (aux_sym__stmt_token1, 3136), (aux_sym__stmt_token2, 3136), (aux_sym__stmt_token3, 3136),
     (aux_sym_if_stmt_token1, 3136), (aux_sym_if_stmt_token3, 3136),
     (aux_sym_case_stmt_token1, 3136), (aux_sym_case_stmt_token2, 3136),
     (aux_sym_for_stmt_token1, 3136), (aux_sym_while_stmt_token1, 3136),
     (aux_sym_repeat_stmt_token1, 3136), (aux_sym_raise_stmt_token1, 3136),
     (aux_sym_try_stmt_token1, 3136), (aux_sym_try_stmt_token2, 3136),
     (aux_sym_catch_clause_token1, 3136), (aux_sym_finally_clause_token1, 3136),
     (sym_c_style_comment, 3), (sym_pascal_style_comment, 3), (sym_pragma, 3),
     (sym__minus_before_base, 3138), (sym__plus_before_base, 3138)]"

lemma ts_parse_row_1213_scan: "row_scan tokens_2_1 0 ts_parse_row_1213 = Some (Suc (Suc (Suc (Suc (Suc (Suc 0))))))"
  unfolding ts_parse_row_1213_def by simp

text \<open>Lines 188283 to 188373.\<close>

definition ts_parse_row_1214 :: parse_row where
  "ts_parse_row_1214 =
    [(sym_identifier, 3140), (anon_sym_EQ, 3142),
     (aux_sym_ERR_unexpected_this_in_path_token1, 3140),
     (aux_sym_ERR_unexpected_super_in_path_token1, 3140), (sym_line_comment, 3),
     (anon_sym_LBRACE, 3140), (anon_sym_LPAREN, 3142), (aux_sym_test_pragma_token1, 3142),
     (aux_sym_once_pragma_token1, 3142), (aux_sym_must_call_pragma_token1, 3142),
     (aux_sym_export_pragma_token1, 3142), (sym_unsigned_int, 3140),
     (sym__explicit_signed_int, 3140), (sym_binary_int, 3142), (sym_octal_int, 3142),
     (sym_hex_int, 3142), (sym__explicit_signed_real, 3142), (sym_real_value, 3142),
     (aux_sym_bool_literal_with_string_token1, 3142),
     (aux_sym_bool_literal_with_string_token2, 3140),
     (aux_sym_bool_literal_with_string_token3, 3140), (sym_s_byte_char_str, 3142),
     (sym_d_byte_char_str, 3142), (aux_sym_time_token1, 3142), (anon_sym_PLUS, 3140),
     (anon_sym_DASH, 3140), (aux_sym_ltime_token1, 3142), (aux_sym_tod_token1, 3142),
     (aux_sym_ltod_token1, 3142), (aux_sym_short_date_token1, 3142),
     (aux_sym_long_date_token1, 3142), (aux_sym_short_date_and_time_token1, 3142),
     (aux_sym_long_date_and_time_token1, 3142), (aux_sym_sign_int_type_name_token1, 3140),
     (aux_sym_sign_int_type_name_token2, 3140), (aux_sym_sign_int_type_name_token3, 3140),
     (aux_sym_sign_int_type_name_token4, 3140), (aux_sym_unsign_int_type_name_token1, 3140),
     (aux_sym_unsign_int_type_name_token2, 3140), (aux_sym_unsign_int_type_name_token3, 3140),
     (aux_sym_unsign_int_type_name_token4, 3140), (aux_sym_real_type_name_token1, 3140),
     (aux_sym_real_type_name_token2, 3140), (aux_sym_string_name_token1, 3140),
     (aux_sym_char_name_token1, 3140), (aux_sym_multibits_type_name_token1, 3140),
     (aux_sym_multibits_type_name_token2, 3140), (aux_sym_multibits_type_name_token3, 3140),
     (aux_sym_multibits_type_name_token4, 3140), (anon_sym_SEMI, 3142), (anon_sym_PERCENT, 3142),
     (anon_sym_STAR, 3140), (aux_sym_ref_value_token1, 3140), (aux_sym_ref_addr_token1, 3140),
     (anon_sym_DOT_DOT_DOT, 3142), (aux_sym_method_decl_token1, 3140), (anon_sym_SLASH, 3140),
     (anon_sym_STAR_STAR, 3142), (anon_sym_AMP, 3142), (anon_sym_LT_GT, 3142), (anon_sym_LT, 3140),
     (anon_sym_GT, 3140), (anon_sym_LT_EQ, 3142), (anon_sym_GT_EQ, 3142),
     (aux_sym_or_operator_token1, 3140), (aux_sym_xor_operator_token1, 3140),
     (aux_sym_and_operator_token1, 3140), (aux_sym_mult_token1, 3140), (aux_sym_unary_token1, 3140),
     (aux_sym__stmt_token1, 3140), (aux_sym__stmt_token2, 3140), (aux_sym__stmt_token3, 3140),
     (aux_sym_if_stmt_token1, 3140), (aux_sym_if_stmt_token3, 3140),
     (aux_sym_case_stmt_token1, 3140), (aux_sym_case_stmt_token2, 3140),
     (aux_sym_for_stmt_token1, 3140), (aux_sym_while_stmt_token1, 3140),
     (aux_sym_repeat_stmt_token1, 3140), (aux_sym_raise_stmt_token1, 3140),
     (aux_sym_try_stmt_token1, 3140), (aux_sym_try_stmt_token2, 3140),
     (aux_sym_catch_clause_token1, 3140), (aux_sym_finally_clause_token1, 3140),
     (sym_c_style_comment, 3), (sym_pascal_style_comment, 3), (sym_pragma, 3),
     (sym__minus_before_base, 3142), (sym__plus_before_base, 3142)]"

lemma ts_parse_row_1214_scan: "row_scan tokens_2_1 0 ts_parse_row_1214 = Some (Suc (Suc (Suc (Suc (Suc (Suc 0))))))"
  unfolding ts_parse_row_1214_def by simp

text \<open>Lines 188374 to 188464.\<close>

definition ts_parse_row_1215 :: parse_row where
  "ts_parse_row_1215 =
    [(sym_identifier, 3144), (anon_sym_EQ, 3146),
     (aux_sym_ERR_unexpected_this_in_path_token1, 3144),
     (aux_sym_ERR_unexpected_super_in_path_token1, 3144), (sym_line_comment, 3),
     (anon_sym_LBRACE, 3144), (anon_sym_LPAREN, 3146), (aux_sym_test_pragma_token1, 3146),
     (aux_sym_once_pragma_token1, 3146), (aux_sym_must_call_pragma_token1, 3146),
     (aux_sym_export_pragma_token1, 3146), (sym_unsigned_int, 3144),
     (sym__explicit_signed_int, 3144), (sym_binary_int, 3146), (sym_octal_int, 3146),
     (sym_hex_int, 3146), (sym__explicit_signed_real, 3146), (sym_real_value, 3146),
     (aux_sym_bool_literal_with_string_token1, 3146),
     (aux_sym_bool_literal_with_string_token2, 3144),
     (aux_sym_bool_literal_with_string_token3, 3144), (sym_s_byte_char_str, 3146),
     (sym_d_byte_char_str, 3146), (aux_sym_time_token1, 3146), (anon_sym_PLUS, 3144),
     (anon_sym_DASH, 3144), (aux_sym_ltime_token1, 3146), (aux_sym_tod_token1, 3146),
     (aux_sym_ltod_token1, 3146), (aux_sym_short_date_token1, 3146),
     (aux_sym_long_date_token1, 3146), (aux_sym_short_date_and_time_token1, 3146),
     (aux_sym_long_date_and_time_token1, 3146), (aux_sym_sign_int_type_name_token1, 3144),
     (aux_sym_sign_int_type_name_token2, 3144), (aux_sym_sign_int_type_name_token3, 3144),
     (aux_sym_sign_int_type_name_token4, 3144), (aux_sym_unsign_int_type_name_token1, 3144),
     (aux_sym_unsign_int_type_name_token2, 3144), (aux_sym_unsign_int_type_name_token3, 3144),
     (aux_sym_unsign_int_type_name_token4, 3144), (aux_sym_real_type_name_token1, 3144),
     (aux_sym_real_type_name_token2, 3144), (aux_sym_string_name_token1, 3144),
     (aux_sym_char_name_token1, 3144), (aux_sym_multibits_type_name_token1, 3144),
     (aux_sym_multibits_type_name_token2, 3144), (aux_sym_multibits_type_name_token3, 3144),
     (aux_sym_multibits_type_name_token4, 3144), (anon_sym_SEMI, 3146), (anon_sym_PERCENT, 3146),
     (anon_sym_STAR, 3144), (aux_sym_ref_value_token1, 3144), (aux_sym_ref_addr_token1, 3144),
     (anon_sym_DOT_DOT_DOT, 3146), (aux_sym_method_decl_token1, 3144), (anon_sym_SLASH, 3144),
     (anon_sym_STAR_STAR, 3146), (anon_sym_AMP, 3146), (anon_sym_LT_GT, 3146), (anon_sym_LT, 3144),
     (anon_sym_GT, 3144), (anon_sym_LT_EQ, 3146), (anon_sym_GT_EQ, 3146),
     (aux_sym_or_operator_token1, 3144), (aux_sym_xor_operator_token1, 3144),
     (aux_sym_and_operator_token1, 3144), (aux_sym_mult_token1, 3144), (aux_sym_unary_token1, 3144),
     (aux_sym__stmt_token1, 3144), (aux_sym__stmt_token2, 3144), (aux_sym__stmt_token3, 3144),
     (aux_sym_if_stmt_token1, 3144), (aux_sym_if_stmt_token3, 3144),
     (aux_sym_case_stmt_token1, 3144), (aux_sym_case_stmt_token2, 3144),
     (aux_sym_for_stmt_token1, 3144), (aux_sym_while_stmt_token1, 3144),
     (aux_sym_repeat_stmt_token1, 3144), (aux_sym_raise_stmt_token1, 3144),
     (aux_sym_try_stmt_token1, 3144), (aux_sym_try_stmt_token2, 3144),
     (aux_sym_catch_clause_token1, 3144), (aux_sym_finally_clause_token1, 3144),
     (sym_c_style_comment, 3), (sym_pascal_style_comment, 3), (sym_pragma, 3),
     (sym__minus_before_base, 3146), (sym__plus_before_base, 3146)]"

lemma ts_parse_row_1215_scan: "row_scan tokens_2_1 0 ts_parse_row_1215 = Some (Suc (Suc (Suc (Suc (Suc (Suc 0))))))"
  unfolding ts_parse_row_1215_def by simp

text \<open>Lines 188465 to 188555.\<close>

definition ts_parse_row_1216 :: parse_row where
  "ts_parse_row_1216 =
    [(sym_identifier, 3000), (anon_sym_EQ, 3002),
     (aux_sym_ERR_unexpected_this_in_path_token1, 3000),
     (aux_sym_ERR_unexpected_super_in_path_token1, 3000), (sym_line_comment, 3),
     (anon_sym_LBRACE, 3000), (anon_sym_LPAREN, 3002), (aux_sym_test_pragma_token1, 3002),
     (aux_sym_once_pragma_token1, 3002), (aux_sym_must_call_pragma_token1, 3002),
     (aux_sym_export_pragma_token1, 3002), (sym_unsigned_int, 3000),
     (sym__explicit_signed_int, 3000), (sym_binary_int, 3002), (sym_octal_int, 3002),
     (sym_hex_int, 3002), (sym__explicit_signed_real, 3002), (sym_real_value, 3002),
     (aux_sym_bool_literal_with_string_token1, 3002),
     (aux_sym_bool_literal_with_string_token2, 3000),
     (aux_sym_bool_literal_with_string_token3, 3000), (sym_s_byte_char_str, 3002),
     (sym_d_byte_char_str, 3002), (aux_sym_time_token1, 3002), (anon_sym_PLUS, 3000),
     (anon_sym_DASH, 3000), (aux_sym_ltime_token1, 3002), (aux_sym_tod_token1, 3002),
     (aux_sym_ltod_token1, 3002), (aux_sym_short_date_token1, 3002),
     (aux_sym_long_date_token1, 3002), (aux_sym_short_date_and_time_token1, 3002),
     (aux_sym_long_date_and_time_token1, 3002), (aux_sym_sign_int_type_name_token1, 3000),
     (aux_sym_sign_int_type_name_token2, 3000), (aux_sym_sign_int_type_name_token3, 3000),
     (aux_sym_sign_int_type_name_token4, 3000), (aux_sym_unsign_int_type_name_token1, 3000),
     (aux_sym_unsign_int_type_name_token2, 3000), (aux_sym_unsign_int_type_name_token3, 3000),
     (aux_sym_unsign_int_type_name_token4, 3000), (aux_sym_real_type_name_token1, 3000),
     (aux_sym_real_type_name_token2, 3000), (aux_sym_string_name_token1, 3000),
     (aux_sym_char_name_token1, 3000), (aux_sym_multibits_type_name_token1, 3000),
     (aux_sym_multibits_type_name_token2, 3000), (aux_sym_multibits_type_name_token3, 3000),
     (aux_sym_multibits_type_name_token4, 3000), (anon_sym_SEMI, 3002), (anon_sym_PERCENT, 3002),
     (anon_sym_STAR, 3000), (aux_sym_ref_value_token1, 3000), (aux_sym_ref_addr_token1, 3000),
     (anon_sym_DOT_DOT_DOT, 3002), (aux_sym_method_decl_token1, 3000), (anon_sym_SLASH, 3000),
     (anon_sym_STAR_STAR, 3002), (anon_sym_AMP, 3002), (anon_sym_LT_GT, 3002), (anon_sym_LT, 3000),
     (anon_sym_GT, 3000), (anon_sym_LT_EQ, 3002), (anon_sym_GT_EQ, 3002),
     (aux_sym_or_operator_token1, 3000), (aux_sym_xor_operator_token1, 3000),
     (aux_sym_and_operator_token1, 3000), (aux_sym_mult_token1, 3000), (aux_sym_unary_token1, 3000),
     (aux_sym__stmt_token1, 3000), (aux_sym__stmt_token2, 3000), (aux_sym__stmt_token3, 3000),
     (aux_sym_if_stmt_token1, 3000), (aux_sym_if_stmt_token3, 3000),
     (aux_sym_case_stmt_token1, 3000), (aux_sym_case_stmt_token2, 3000),
     (aux_sym_for_stmt_token1, 3000), (aux_sym_while_stmt_token1, 3000),
     (aux_sym_repeat_stmt_token1, 3000), (aux_sym_raise_stmt_token1, 3000),
     (aux_sym_try_stmt_token1, 3000), (aux_sym_try_stmt_token2, 3000),
     (aux_sym_catch_clause_token1, 3000), (aux_sym_finally_clause_token1, 3000),
     (sym_c_style_comment, 3), (sym_pascal_style_comment, 3), (sym_pragma, 3),
     (sym__minus_before_base, 3002), (sym__plus_before_base, 3002)]"

lemma ts_parse_row_1216_scan: "row_scan tokens_2_1 0 ts_parse_row_1216 = Some (Suc (Suc (Suc (Suc (Suc (Suc 0))))))"
  unfolding ts_parse_row_1216_def by simp

text \<open>Lines 188556 to 188646.\<close>

definition ts_parse_row_1217 :: parse_row where
  "ts_parse_row_1217 =
    [(sym_identifier, 3148), (anon_sym_EQ, 3150),
     (aux_sym_ERR_unexpected_this_in_path_token1, 3148),
     (aux_sym_ERR_unexpected_super_in_path_token1, 3148), (sym_line_comment, 3),
     (anon_sym_LBRACE, 3148), (anon_sym_LPAREN, 3150), (aux_sym_test_pragma_token1, 3150),
     (aux_sym_once_pragma_token1, 3150), (aux_sym_must_call_pragma_token1, 3150),
     (aux_sym_export_pragma_token1, 3150), (sym_unsigned_int, 3148),
     (sym__explicit_signed_int, 3148), (sym_binary_int, 3150), (sym_octal_int, 3150),
     (sym_hex_int, 3150), (sym__explicit_signed_real, 3150), (sym_real_value, 3150),
     (aux_sym_bool_literal_with_string_token1, 3150),
     (aux_sym_bool_literal_with_string_token2, 3148),
     (aux_sym_bool_literal_with_string_token3, 3148), (sym_s_byte_char_str, 3150),
     (sym_d_byte_char_str, 3150), (aux_sym_time_token1, 3150), (anon_sym_PLUS, 3148),
     (anon_sym_DASH, 3148), (aux_sym_ltime_token1, 3150), (aux_sym_tod_token1, 3150),
     (aux_sym_ltod_token1, 3150), (aux_sym_short_date_token1, 3150),
     (aux_sym_long_date_token1, 3150), (aux_sym_short_date_and_time_token1, 3150),
     (aux_sym_long_date_and_time_token1, 3150), (aux_sym_sign_int_type_name_token1, 3148),
     (aux_sym_sign_int_type_name_token2, 3148), (aux_sym_sign_int_type_name_token3, 3148),
     (aux_sym_sign_int_type_name_token4, 3148), (aux_sym_unsign_int_type_name_token1, 3148),
     (aux_sym_unsign_int_type_name_token2, 3148), (aux_sym_unsign_int_type_name_token3, 3148),
     (aux_sym_unsign_int_type_name_token4, 3148), (aux_sym_real_type_name_token1, 3148),
     (aux_sym_real_type_name_token2, 3148), (aux_sym_string_name_token1, 3148),
     (aux_sym_char_name_token1, 3148), (aux_sym_multibits_type_name_token1, 3148),
     (aux_sym_multibits_type_name_token2, 3148), (aux_sym_multibits_type_name_token3, 3148),
     (aux_sym_multibits_type_name_token4, 3148), (anon_sym_SEMI, 3150), (anon_sym_PERCENT, 3150),
     (anon_sym_STAR, 3148), (aux_sym_ref_value_token1, 3148), (aux_sym_ref_addr_token1, 3148),
     (anon_sym_DOT_DOT_DOT, 3150), (aux_sym_method_decl_token1, 3148), (anon_sym_SLASH, 3148),
     (anon_sym_STAR_STAR, 3150), (anon_sym_AMP, 3150), (anon_sym_LT_GT, 3150), (anon_sym_LT, 3148),
     (anon_sym_GT, 3148), (anon_sym_LT_EQ, 3150), (anon_sym_GT_EQ, 3150),
     (aux_sym_or_operator_token1, 3148), (aux_sym_xor_operator_token1, 3148),
     (aux_sym_and_operator_token1, 3148), (aux_sym_mult_token1, 3148), (aux_sym_unary_token1, 3148),
     (aux_sym__stmt_token1, 3148), (aux_sym__stmt_token2, 3148), (aux_sym__stmt_token3, 3148),
     (aux_sym_if_stmt_token1, 3148), (aux_sym_if_stmt_token3, 3148),
     (aux_sym_case_stmt_token1, 3148), (aux_sym_case_stmt_token2, 3148),
     (aux_sym_for_stmt_token1, 3148), (aux_sym_while_stmt_token1, 3148),
     (aux_sym_repeat_stmt_token1, 3148), (aux_sym_raise_stmt_token1, 3148),
     (aux_sym_try_stmt_token1, 3148), (aux_sym_try_stmt_token2, 3148),
     (aux_sym_catch_clause_token1, 3148), (aux_sym_finally_clause_token1, 3148),
     (sym_c_style_comment, 3), (sym_pascal_style_comment, 3), (sym_pragma, 3),
     (sym__minus_before_base, 3150), (sym__plus_before_base, 3150)]"

lemma ts_parse_row_1217_scan: "row_scan tokens_2_1 0 ts_parse_row_1217 = Some (Suc (Suc (Suc (Suc (Suc (Suc 0))))))"
  unfolding ts_parse_row_1217_def by simp

text \<open>Lines 188647 to 188734.\<close>

definition ts_parse_row_1218 :: parse_row where
  "ts_parse_row_1218 =
    [(sym_ERR_unexpected_this_in_path, 2372), (sym_ERR_unexpected_super_in_path, 2372),
     (sym_constant, 8102), (sym_numeric_literal, 2090), (sym_int_literal, 2092),
     (sym_int_kind, 9320), (sym_signed_int, 2111), (sym_real_literal, 2092),
     (sym_signed_real_value, 2105), (sym_bool_literal, 2090), (sym_bool_literal_with_string, 2114),
     (sym_bool_literal_with_numeric, 2114), (sym_char_literal, 2090), (sym_char_str, 2120),
     (sym_time_literal, 2090), (sym_duration, 2123), (sym_time, 2087), (sym_ltime, 2087),
     (sym_time_of_day, 2123), (sym_tod, 2091), (sym_ltod, 2091), (sym_date, 2123),
     (sym_short_date, 2066), (sym_long_date, 2066), (sym_date_and_time, 2123),
     (sym_short_date_and_time, 2067), (sym_long_date_and_time, 2067), (sym_int_type_name, 9449),
     (sym_sign_int_type_name, 2352), (sym_unsign_int_type_name, 2352), (sym_real_type_name, 9455),
     (sym_string_type_name, 9457), (sym_string_name, 2353), (sym_char_name, 2353),
     (sym_multibits_type_name, 9449), (sym_direct_variable, 8102), (sym_deref_expression, 2373),
     (sym_var_access, 2373), (sym_data_source, 8103), (sym_path_expression, 7606),
     (sym_field_expression, 2373), (sym_index_expression, 2373), (sym_identifier, 298),
     (aux_sym_ERR_unexpected_this_in_path_token1, 3152),
     (aux_sym_ERR_unexpected_super_in_path_token1, 3154), (sym_line_comment, 3),
     (sym_unsigned_int, 47), (sym__explicit_signed_int, 47), (sym_binary_int, 49),
     (sym_octal_int, 49), (sym_hex_int, 51), (sym__explicit_signed_real, 53), (sym_real_value, 53),
     (aux_sym_bool_literal_with_string_token1, 55), (aux_sym_bool_literal_with_string_token2, 57),
     (aux_sym_bool_literal_with_string_token3, 57), (sym_s_byte_char_str, 59),
     (sym_d_byte_char_str, 59), (aux_sym_time_token1, 61), (aux_sym_ltime_token1, 65),
     (aux_sym_tod_token1, 67), (aux_sym_ltod_token1, 69), (aux_sym_short_date_token1, 71),
     (aux_sym_long_date_token1, 73), (aux_sym_short_date_and_time_token1, 75),
     (aux_sym_long_date_and_time_token1, 77), (aux_sym_sign_int_type_name_token1, 79),
     (aux_sym_sign_int_type_name_token2, 79), (aux_sym_sign_int_type_name_token3, 79),
     (aux_sym_sign_int_type_name_token4, 79), (aux_sym_unsign_int_type_name_token1, 81),
     (aux_sym_unsign_int_type_name_token2, 81), (aux_sym_unsign_int_type_name_token3, 81),
     (aux_sym_unsign_int_type_name_token4, 81), (aux_sym_real_type_name_token1, 83),
     (aux_sym_real_type_name_token2, 83), (aux_sym_string_name_token1, 85),
     (aux_sym_char_name_token1, 87), (aux_sym_multibits_type_name_token1, 89),
     (aux_sym_multibits_type_name_token2, 89), (aux_sym_multibits_type_name_token3, 89),
     (aux_sym_multibits_type_name_token4, 89), (anon_sym_PERCENT, 312), (sym_c_style_comment, 3),
     (sym_pascal_style_comment, 3), (sym_pragma, 3)]"

lemma ts_parse_row_1218_scan: "row_scan tokens_4_2 0 ts_parse_row_1218 = Some (Suc (Suc (Suc (Suc 0))))"
  unfolding ts_parse_row_1218_def by simp

text \<open>Lines 188735 to 188822.\<close>

definition ts_parse_row_1219 :: parse_row where
  "ts_parse_row_1219 =
    [(sym_ERR_unexpected_this_in_path, 2372), (sym_ERR_unexpected_super_in_path, 2372),
     (sym_constant, 8102), (sym_numeric_literal, 2090), (sym_int_literal, 2092),
     (sym_int_kind, 9320), (sym_signed_int, 2111), (sym_real_literal, 2092),
     (sym_signed_real_value, 2105), (sym_bool_literal, 2090), (sym_bool_literal_with_string, 2114),
     (sym_bool_literal_with_numeric, 2114), (sym_char_literal, 2090), (sym_char_str, 2120),
     (sym_time_literal, 2090), (sym_duration, 2123), (sym_time, 2087), (sym_ltime, 2087),
     (sym_time_of_day, 2123), (sym_tod, 2091), (sym_ltod, 2091), (sym_date, 2123),
     (sym_short_date, 2066), (sym_long_date, 2066), (sym_date_and_time, 2123),
     (sym_short_date_and_time, 2067), (sym_long_date_and_time, 2067), (sym_int_type_name, 9449),
     (sym_sign_int_type_name, 2352), (sym_unsign_int_type_name, 2352), (sym_real_type_name, 9455),
     (sym_string_type_name, 9457), (sym_string_name, 2353), (sym_char_name, 2353),
     (sym_multibits_type_name, 9449), (sym_direct_variable, 8102), (sym_deref_expression, 2373),
     (sym_var_access, 2373), (sym_data_source, 8088), (sym_path_expression, 7606),
     (sym_field_expression, 2373), (sym_index_expression, 2373), (sym_identifier, 298),
     (aux_sym_ERR_unexpected_this_in_path_token1, 3152),
     (aux_sym_ERR_unexpected_super_in_path_token1, 3154), (sym_line_comment, 3),
     (sym_unsigned_int, 47), (sym__explicit_signed_int, 47), (sym_binary_int, 49),
     (sym_octal_int, 49), (sym_hex_int, 51), (sym__explicit_signed_real, 53), (sym_real_value, 53),
     (aux_sym_bool_literal_with_string_token1, 55), (aux_sym_bool_literal_with_string_token2, 57),
     (aux_sym_bool_literal_with_string_token3, 57), (sym_s_byte_char_str, 59),
     (sym_d_byte_char_str, 59), (aux_sym_time_token1, 61), (aux_sym_ltime_token1, 65),
     (aux_sym_tod_token1, 67), (aux_sym_ltod_token1, 69), (aux_sym_short_date_token1, 71),
     (aux_sym_long_date_token1, 73), (aux_sym_short_date_and_time_token1, 75),
     (aux_sym_long_date_and_time_token1, 77), (aux_sym_sign_int_type_name_token1, 79),
     (aux_sym_sign_int_type_name_token2, 79), (aux_sym_sign_int_type_name_token3, 79),
     (aux_sym_sign_int_type_name_token4, 79), (aux_sym_unsign_int_type_name_token1, 81),
     (aux_sym_unsign_int_type_name_token2, 81), (aux_sym_unsign_int_type_name_token3, 81),
     (aux_sym_unsign_int_type_name_token4, 81), (aux_sym_real_type_name_token1, 83),
     (aux_sym_real_type_name_token2, 83), (aux_sym_string_name_token1, 85),
     (aux_sym_char_name_token1, 87), (aux_sym_multibits_type_name_token1, 89),
     (aux_sym_multibits_type_name_token2, 89), (aux_sym_multibits_type_name_token3, 89),
     (aux_sym_multibits_type_name_token4, 89), (anon_sym_PERCENT, 312), (sym_c_style_comment, 3),
     (sym_pascal_style_comment, 3), (sym_pragma, 3)]"

lemma ts_parse_row_1219_scan: "row_scan tokens_4_2 0 ts_parse_row_1219 = Some (Suc (Suc (Suc (Suc 0))))"
  unfolding ts_parse_row_1219_def by simp

text \<open>Lines 188823 to 188910.\<close>

definition ts_parse_row_1220 :: parse_row where
  "ts_parse_row_1220 =
    [(sym_ERR_unexpected_this_in_path, 2372), (sym_ERR_unexpected_super_in_path, 2372),
     (sym_constant, 8102), (sym_numeric_literal, 2090), (sym_int_literal, 2092),
     (sym_int_kind, 9320), (sym_signed_int, 2111), (sym_real_literal, 2092),
     (sym_signed_real_value, 2105), (sym_bool_literal, 2090), (sym_bool_literal_with_string, 2114),
     (sym_bool_literal_with_numeric, 2114), (sym_char_literal, 2090), (sym_char_str, 2120),
     (sym_time_literal, 2090), (sym_duration, 2123), (sym_time, 2087), (sym_ltime, 2087),
     (sym_time_of_day, 2123), (sym_tod, 2091), (sym_ltod, 2091), (sym_date, 2123),
     (sym_short_date, 2066), (sym_long_date, 2066), (sym_date_and_time, 2123),
     (sym_short_date_and_time, 2067), (sym_long_date_and_time, 2067), (sym_int_type_name, 9449),
     (sym_sign_int_type_name, 2352), (sym_unsign_int_type_name, 2352), (sym_real_type_name, 9455),
     (sym_string_type_name, 9457), (sym_string_name, 2353), (sym_char_name, 2353),
     (sym_multibits_type_name, 9449), (sym_direct_variable, 8102), (sym_deref_expression, 2373),
     (sym_var_access, 2373), (sym_data_source, 8076), (sym_path_expression, 7606),
     (sym_field_expression, 2373), (sym_index_expression, 2373), (sym_identifier, 298),
     (aux_sym_ERR_unexpected_this_in_path_token1, 3152),
     (aux_sym_ERR_unexpected_super_in_path_token1, 3154), (sym_line_comment, 3),
     (sym_unsigned_int, 47), (sym__explicit_signed_int, 47), (sym_binary_int, 49),
     (sym_octal_int, 49), (sym_hex_int, 51), (sym__explicit_signed_real, 53), (sym_real_value, 53),
     (aux_sym_bool_literal_with_string_token1, 55), (aux_sym_bool_literal_with_string_token2, 57),
     (aux_sym_bool_literal_with_string_token3, 57), (sym_s_byte_char_str, 59),
     (sym_d_byte_char_str, 59), (aux_sym_time_token1, 61), (aux_sym_ltime_token1, 65),
     (aux_sym_tod_token1, 67), (aux_sym_ltod_token1, 69), (aux_sym_short_date_token1, 71),
     (aux_sym_long_date_token1, 73), (aux_sym_short_date_and_time_token1, 75),
     (aux_sym_long_date_and_time_token1, 77), (aux_sym_sign_int_type_name_token1, 79),
     (aux_sym_sign_int_type_name_token2, 79), (aux_sym_sign_int_type_name_token3, 79),
     (aux_sym_sign_int_type_name_token4, 79), (aux_sym_unsign_int_type_name_token1, 81),
     (aux_sym_unsign_int_type_name_token2, 81), (aux_sym_unsign_int_type_name_token3, 81),
     (aux_sym_unsign_int_type_name_token4, 81), (aux_sym_real_type_name_token1, 83),
     (aux_sym_real_type_name_token2, 83), (aux_sym_string_name_token1, 85),
     (aux_sym_char_name_token1, 87), (aux_sym_multibits_type_name_token1, 89),
     (aux_sym_multibits_type_name_token2, 89), (aux_sym_multibits_type_name_token3, 89),
     (aux_sym_multibits_type_name_token4, 89), (anon_sym_PERCENT, 312), (sym_c_style_comment, 3),
     (sym_pascal_style_comment, 3), (sym_pragma, 3)]"

lemma ts_parse_row_1220_scan: "row_scan tokens_4_2 0 ts_parse_row_1220 = Some (Suc (Suc (Suc (Suc 0))))"
  unfolding ts_parse_row_1220_def by simp

text \<open>Lines 188911 to 188998.\<close>

definition ts_parse_row_1221 :: parse_row where
  "ts_parse_row_1221 =
    [(sym_ERR_unexpected_this_in_path, 2372), (sym_ERR_unexpected_super_in_path, 2372),
     (sym_constant, 8102), (sym_numeric_literal, 2090), (sym_int_literal, 2092),
     (sym_int_kind, 9320), (sym_signed_int, 2111), (sym_real_literal, 2092),
     (sym_signed_real_value, 2105), (sym_bool_literal, 2090), (sym_bool_literal_with_string, 2114),
     (sym_bool_literal_with_numeric, 2114), (sym_char_literal, 2090), (sym_char_str, 2120),
     (sym_time_literal, 2090), (sym_duration, 2123), (sym_time, 2087), (sym_ltime, 2087),
     (sym_time_of_day, 2123), (sym_tod, 2091), (sym_ltod, 2091), (sym_date, 2123),
     (sym_short_date, 2066), (sym_long_date, 2066), (sym_date_and_time, 2123),
     (sym_short_date_and_time, 2067), (sym_long_date_and_time, 2067), (sym_int_type_name, 9449),
     (sym_sign_int_type_name, 2352), (sym_unsign_int_type_name, 2352), (sym_real_type_name, 9455),
     (sym_string_type_name, 9457), (sym_string_name, 2353), (sym_char_name, 2353),
     (sym_multibits_type_name, 9449), (sym_direct_variable, 8102), (sym_deref_expression, 2373),
     (sym_var_access, 2373), (sym_data_source, 7974), (sym_path_expression, 7606),
     (sym_field_expression, 2373), (sym_index_expression, 2373), (sym_identifier, 298),
     (aux_sym_ERR_unexpected_this_in_path_token1, 3152),
     (aux_sym_ERR_unexpected_super_in_path_token1, 3154), (sym_line_comment, 3),
     (sym_unsigned_int, 47), (sym__explicit_signed_int, 47), (sym_binary_int, 49),
     (sym_octal_int, 49), (sym_hex_int, 51), (sym__explicit_signed_real, 53), (sym_real_value, 53),
     (aux_sym_bool_literal_with_string_token1, 55), (aux_sym_bool_literal_with_string_token2, 57),
     (aux_sym_bool_literal_with_string_token3, 57), (sym_s_byte_char_str, 59),
     (sym_d_byte_char_str, 59), (aux_sym_time_token1, 61), (aux_sym_ltime_token1, 65),
     (aux_sym_tod_token1, 67), (aux_sym_ltod_token1, 69), (aux_sym_short_date_token1, 71),
     (aux_sym_long_date_token1, 73), (aux_sym_short_date_and_time_token1, 75),
     (aux_sym_long_date_and_time_token1, 77), (aux_sym_sign_int_type_name_token1, 79),
     (aux_sym_sign_int_type_name_token2, 79), (aux_sym_sign_int_type_name_token3, 79),
     (aux_sym_sign_int_type_name_token4, 79), (aux_sym_unsign_int_type_name_token1, 81),
     (aux_sym_unsign_int_type_name_token2, 81), (aux_sym_unsign_int_type_name_token3, 81),
     (aux_sym_unsign_int_type_name_token4, 81), (aux_sym_real_type_name_token1, 83),
     (aux_sym_real_type_name_token2, 83), (aux_sym_string_name_token1, 85),
     (aux_sym_char_name_token1, 87), (aux_sym_multibits_type_name_token1, 89),
     (aux_sym_multibits_type_name_token2, 89), (aux_sym_multibits_type_name_token3, 89),
     (aux_sym_multibits_type_name_token4, 89), (anon_sym_PERCENT, 312), (sym_c_style_comment, 3),
     (sym_pascal_style_comment, 3), (sym_pragma, 3)]"

lemma ts_parse_row_1221_scan: "row_scan tokens_4_2 0 ts_parse_row_1221 = Some (Suc (Suc (Suc (Suc 0))))"
  unfolding ts_parse_row_1221_def by simp

text \<open>Lines 188999 to 189086.\<close>

definition ts_parse_row_1222 :: parse_row where
  "ts_parse_row_1222 =
    [(sym_ERR_unexpected_this_in_path, 2372), (sym_ERR_unexpected_super_in_path, 2372),
     (sym_constant, 8158), (sym_numeric_literal, 2090), (sym_int_literal, 2092),
     (sym_int_kind, 9320), (sym_signed_int, 2111), (sym_real_literal, 2092),
     (sym_signed_real_value, 2105), (sym_bool_literal, 2090), (sym_bool_literal_with_string, 2114),
     (sym_bool_literal_with_numeric, 2114), (sym_char_literal, 2090), (sym_char_str, 2120),
     (sym_time_literal, 2090), (sym_duration, 2123), (sym_time, 2087), (sym_ltime, 2087),
     (sym_time_of_day, 2123), (sym_tod, 2091), (sym_ltod, 2091), (sym_date, 2123),
     (sym_short_date, 2066), (sym_long_date, 2066), (sym_date_and_time, 2123),
     (sym_short_date_and_time, 2067), (sym_long_date_and_time, 2067), (sym_int_type_name, 9449),
     (sym_sign_int_type_name, 2352), (sym_unsign_int_type_name, 2352), (sym_real_type_name, 9455),
     (sym_string_type_name, 9457), (sym_string_name, 2353), (sym_char_name, 2353),
     (sym_multibits_type_name, 9449), (sym_direct_variable, 8158), (sym_deref_expression, 2373),
     (sym_var_access, 2373), (sym_prog_data_source, 8162), (sym_path_expression, 7659),
     (sym_field_expression, 2373), (sym_index_expression, 2373), (sym_identifier, 298),
     (aux_sym_ERR_unexpected_this_in_path_token1, 3152),
     (aux_sym_ERR_unexpected_super_in_path_token1, 3154), (sym_line_comment, 3),
     (sym_unsigned_int, 47), (sym__explicit_signed_int, 47), (sym_binary_int, 49),
     (sym_octal_int, 49), (sym_hex_int, 51), (sym__explicit_signed_real, 53), (sym_real_value, 53),
     (aux_sym_bool_literal_with_string_token1, 55), (aux_sym_bool_literal_with_string_token2, 57),
     (aux_sym_bool_literal_with_string_token3, 57), (sym_s_byte_char_str, 59),
     (sym_d_byte_char_str, 59), (aux_sym_time_token1, 61), (aux_sym_ltime_token1, 65),
     (aux_sym_tod_token1, 67), (aux_sym_ltod_token1, 69), (aux_sym_short_date_token1, 71),
     (aux_sym_long_date_token1, 73), (aux_sym_short_date_and_time_token1, 75),
     (aux_sym_long_date_and_time_token1, 77), (aux_sym_sign_int_type_name_token1, 79),
     (aux_sym_sign_int_type_name_token2, 79), (aux_sym_sign_int_type_name_token3, 79),
     (aux_sym_sign_int_type_name_token4, 79), (aux_sym_unsign_int_type_name_token1, 81),
     (aux_sym_unsign_int_type_name_token2, 81), (aux_sym_unsign_int_type_name_token3, 81),
     (aux_sym_unsign_int_type_name_token4, 81), (aux_sym_real_type_name_token1, 83),
     (aux_sym_real_type_name_token2, 83), (aux_sym_string_name_token1, 85),
     (aux_sym_char_name_token1, 87), (aux_sym_multibits_type_name_token1, 89),
     (aux_sym_multibits_type_name_token2, 89), (aux_sym_multibits_type_name_token3, 89),
     (aux_sym_multibits_type_name_token4, 89), (anon_sym_PERCENT, 312), (sym_c_style_comment, 3),
     (sym_pascal_style_comment, 3), (sym_pragma, 3)]"

lemma ts_parse_row_1222_scan: "row_scan tokens_4_2 0 ts_parse_row_1222 = Some (Suc (Suc (Suc (Suc 0))))"
  unfolding ts_parse_row_1222_def by simp

text \<open>Lines 189087 to 189174.\<close>

definition ts_parse_row_1223 :: parse_row where
  "ts_parse_row_1223 =
    [(sym_ERR_unexpected_this_in_path, 2372), (sym_ERR_unexpected_super_in_path, 2372),
     (sym_constant, 8102), (sym_numeric_literal, 2090), (sym_int_literal, 2092),
     (sym_int_kind, 9320), (sym_signed_int, 2111), (sym_real_literal, 2092),
     (sym_signed_real_value, 2105), (sym_bool_literal, 2090), (sym_bool_literal_with_string, 2114),
     (sym_bool_literal_with_numeric, 2114), (sym_char_literal, 2090), (sym_char_str, 2120),
     (sym_time_literal, 2090), (sym_duration, 2123), (sym_time, 2087), (sym_ltime, 2087),
     (sym_time_of_day, 2123), (sym_tod, 2091), (sym_ltod, 2091), (sym_date, 2123),
     (sym_short_date, 2066), (sym_long_date, 2066), (sym_date_and_time, 2123),
     (sym_short_date_and_time, 2067), (sym_long_date_and_time, 2067), (sym_int_type_name, 9449),
     (sym_sign_int_type_name, 2352), (sym_unsign_int_type_name, 2352), (sym_real_type_name, 9455),
     (sym_string_type_name, 9457), (sym_string_name, 2353), (sym_char_name, 2353),
     (sym_multibits_type_name, 9449), (sym_direct_variable, 8102), (sym_deref_expression, 2373),
     (sym_var_access, 2373), (sym_data_source, 10064), (sym_path_expression, 7606),
     (sym_field_expression, 2373), (sym_index_expression, 2373), (sym_identifier, 298),
     (aux_sym_ERR_unexpected_this_in_path_token1, 3152),
     (aux_sym_ERR_unexpected_super_in_path_token1, 3154), (sym_line_comment, 3),
     (sym_unsigned_int, 47), (sym__explicit_signed_int, 47), (sym_binary_int, 49),
     (sym_octal_int, 49), (sym_hex_int, 51), (sym__explicit_signed_real, 53), (sym_real_value, 53),
     (aux_sym_bool_literal_with_string_token1, 55), (aux_sym_bool_literal_with_string_token2, 57),
     (aux_sym_bool_literal_with_string_token3, 57), (sym_s_byte_char_str, 59),
     (sym_d_byte_char_str, 59), (aux_sym_time_token1, 61), (aux_sym_ltime_token1, 65),
     (aux_sym_tod_token1, 67), (aux_sym_ltod_token1, 69), (aux_sym_short_date_token1, 71),
     (aux_sym_long_date_token1, 73), (aux_sym_short_date_and_time_token1, 75),
     (aux_sym_long_date_and_time_token1, 77), (aux_sym_sign_int_type_name_token1, 79),
     (aux_sym_sign_int_type_name_token2, 79), (aux_sym_sign_int_type_name_token3, 79),
     (aux_sym_sign_int_type_name_token4, 79), (aux_sym_unsign_int_type_name_token1, 81),
     (aux_sym_unsign_int_type_name_token2, 81), (aux_sym_unsign_int_type_name_token3, 81),
     (aux_sym_unsign_int_type_name_token4, 81), (aux_sym_real_type_name_token1, 83),
     (aux_sym_real_type_name_token2, 83), (aux_sym_string_name_token1, 85),
     (aux_sym_char_name_token1, 87), (aux_sym_multibits_type_name_token1, 89),
     (aux_sym_multibits_type_name_token2, 89), (aux_sym_multibits_type_name_token3, 89),
     (aux_sym_multibits_type_name_token4, 89), (anon_sym_PERCENT, 312), (sym_c_style_comment, 3),
     (sym_pascal_style_comment, 3), (sym_pragma, 3)]"

lemma ts_parse_row_1223_scan: "row_scan tokens_4_2 0 ts_parse_row_1223 = Some (Suc (Suc (Suc (Suc 0))))"
  unfolding ts_parse_row_1223_def by simp

text \<open>Lines 189175 to 189262.\<close>

definition ts_parse_row_1224 :: parse_row where
  "ts_parse_row_1224 =
    [(sym_ERR_unexpected_this_in_path, 2372), (sym_ERR_unexpected_super_in_path, 2372),
     (sym_constant, 8102), (sym_numeric_literal, 2090), (sym_int_literal, 2092),
     (sym_int_kind, 9320), (sym_signed_int, 2111), (sym_real_literal, 2092),
     (sym_signed_real_value, 2105), (sym_bool_literal, 2090), (sym_bool_literal_with_string, 2114),
     (sym_bool_literal_with_numeric, 2114), (sym_char_literal, 2090), (sym_char_str, 2120),
     (sym_time_literal, 2090), (sym_duration, 2123), (sym_time, 2087), (sym_ltime, 2087),
     (sym_time_of_day, 2123), (sym_tod, 2091), (sym_ltod, 2091), (sym_date, 2123),
     (sym_short_date, 2066), (sym_long_date, 2066), (sym_date_and_time, 2123),
     (sym_short_date_and_time, 2067), (sym_long_date_and_time, 2067), (sym_int_type_name, 9449),
     (sym_sign_int_type_name, 2352), (sym_unsign_int_type_name, 2352), (sym_real_type_name, 9455),
     (sym_string_type_name, 9457), (sym_string_name, 2353), (sym_char_name, 2353),
     (sym_multibits_type_name, 9449), (sym_direct_variable, 8102), (sym_deref_expression, 2373),
     (sym_var_access, 2373), (sym_data_source, 8202), (sym_path_expression, 7606),
     (sym_field_expression, 2373), (sym_index_expression, 2373), (sym_identifier, 298),
     (aux_sym_ERR_unexpected_this_in_path_token1, 3152),
     (aux_sym_ERR_unexpected_super_in_path_token1, 3154), (sym_line_comment, 3),
     (sym_unsigned_int, 47), (sym__explicit_signed_int, 47), (sym_binary_int, 49),
     (sym_octal_int, 49), (sym_hex_int, 51), (sym__explicit_signed_real, 53), (sym_real_value, 53),
     (aux_sym_bool_literal_with_string_token1, 55), (aux_sym_bool_literal_with_string_token2, 57),
     (aux_sym_bool_literal_with_string_token3, 57), (sym_s_byte_char_str, 59),
     (sym_d_byte_char_str, 59), (aux_sym_time_token1, 61), (aux_sym_ltime_token1, 65),
     (aux_sym_tod_token1, 67), (aux_sym_ltod_token1, 69), (aux_sym_short_date_token1, 71),
     (aux_sym_long_date_token1, 73), (aux_sym_short_date_and_time_token1, 75),
     (aux_sym_long_date_and_time_token1, 77), (aux_sym_sign_int_type_name_token1, 79),
     (aux_sym_sign_int_type_name_token2, 79), (aux_sym_sign_int_type_name_token3, 79),
     (aux_sym_sign_int_type_name_token4, 79), (aux_sym_unsign_int_type_name_token1, 81),
     (aux_sym_unsign_int_type_name_token2, 81), (aux_sym_unsign_int_type_name_token3, 81),
     (aux_sym_unsign_int_type_name_token4, 81), (aux_sym_real_type_name_token1, 83),
     (aux_sym_real_type_name_token2, 83), (aux_sym_string_name_token1, 85),
     (aux_sym_char_name_token1, 87), (aux_sym_multibits_type_name_token1, 89),
     (aux_sym_multibits_type_name_token2, 89), (aux_sym_multibits_type_name_token3, 89),
     (aux_sym_multibits_type_name_token4, 89), (anon_sym_PERCENT, 312), (sym_c_style_comment, 3),
     (sym_pascal_style_comment, 3), (sym_pragma, 3)]"

lemma ts_parse_row_1224_scan: "row_scan tokens_4_2 0 ts_parse_row_1224 = Some (Suc (Suc (Suc (Suc 0))))"
  unfolding ts_parse_row_1224_def by simp

text \<open>Lines 189263 to 189347.\<close>

definition ts_parse_row_1225 :: parse_row where
  "ts_parse_row_1225 =
    [(sym_ERR_assign_func_call, 7530), (sym_ERR_unexpected_this_in_path, 2372),
     (sym_ERR_unexpected_super_in_path, 2372), (sym_ERR_method_decl_in_body, 3150),
     (sym_extern_pragma, 7490), (sym_wasm_pragma, 3150), (sym_warn_pragma, 7490),
     (sym_allow_pragma, 3140), (sym_test_pragma, 7490), (sym_once_pragma, 7490),
     (sym_must_call_pragma, 7490), (sym_export_pragma, 7490), (sym_pou_pragma, 7194),
     (sym_direct_variable, 7675), (sym_deref_expression, 2373), (sym_variable, 7599),
     (sym_var_access, 2373), (sym_fb_body, 9375), (sym_method_decl, 3159), (sym_SFC, 7970),
     (sym_SFC_network, 7612), (sym_initial_step, 7439), (sym_variable_access, 7530),
     (sym_func_call, 2961), (sym_stmt_list, 7970), (sym__stmt, 2024), (sym_assign, 3150),
     (sym_if_stmt, 3150), (sym_case_stmt, 3150), (sym_for_stmt, 3150), (sym_while_stmt, 3150),
     (sym_repeat_stmt, 3150), (sym_raise_stmt, 3150), (sym_try_stmt, 3150),
     (sym_ERR_clause_outside_try, 3150), (sym_begin_path_expression, 2943), (sym_invocation, 2934),
     (sym_any_invocation, 2935), (sym_this_invocation, 2641), (sym_super_invocation, 2641),
     (sym_super_body_invocation, 2935), (sym_path_expression, 2627), (sym_field_expression, 2373),
     (sym_index_expression, 2373), (sym_ladder_diagram, 7970), (sym_fb_diagram, 7970),
     (aux_sym_func_decl_repeat1, 7194), (aux_sym_SFC_repeat1, 7612),
     (aux_sym_stmt_list_repeat1, 2024), (aux_sym_ladder_diagram_repeat1, 8009),
     (aux_sym_fb_diagram_repeat1, 8013), (sym_identifier, 298),
     (aux_sym_ERR_unexpected_this_in_path_token1, 304),
     (aux_sym_ERR_unexpected_super_in_path_token1, 306), (sym_line_comment, 3),
     (anon_sym_LBRACE, 308), (aux_sym_test_pragma_token1, 9), (aux_sym_once_pragma_token1, 11),
     (aux_sym_must_call_pragma_token1, 13), (aux_sym_export_pragma_token1, 15),
     (anon_sym_SEMI, 310), (anon_sym_PERCENT, 312), (aux_sym_fb_decl_token4, 3156),
     (aux_sym_method_decl_token1, 330), (aux_sym_initial_step_token1, 334),
     (aux_sym__stmt_token1, 340), (aux_sym__stmt_token2, 340), (aux_sym__stmt_token3, 340),
     (aux_sym_if_stmt_token1, 342), (aux_sym_case_stmt_token1, 344), (aux_sym_for_stmt_token1, 346),
     (aux_sym_while_stmt_token1, 348), (aux_sym_repeat_stmt_token1, 350),
     (aux_sym_raise_stmt_token1, 352), (aux_sym_try_stmt_token1, 354),
     (aux_sym_try_stmt_token2, 356), (aux_sym_catch_clause_token1, 356),
     (aux_sym_finally_clause_token1, 356), (sym_ld_rung, 358), (sym_fbd_network, 360),
     (sym_c_style_comment, 3), (sym_pascal_style_comment, 3), (sym_pragma, 3)]"

lemma ts_parse_row_1225_scan: "row_scan tokens_63_2 0 ts_parse_row_1225 = Some (Suc (Suc (Suc (Suc 0))))"
  unfolding ts_parse_row_1225_def by simp

text \<open>Lines 189348 to 189432.\<close>

definition ts_parse_row_1226 :: parse_row where
  "ts_parse_row_1226 =
    [(sym_ERR_assign_func_call, 7530), (sym_ERR_unexpected_this_in_path, 2372),
     (sym_ERR_unexpected_super_in_path, 2372), (sym_ERR_method_decl_in_body, 3150),
     (sym_extern_pragma, 7490), (sym_wasm_pragma, 3150), (sym_warn_pragma, 7490),
     (sym_allow_pragma, 3140), (sym_test_pragma, 7490), (sym_once_pragma, 7490),
     (sym_must_call_pragma, 7490), (sym_export_pragma, 7490), (sym_pou_pragma, 7194),
     (sym_direct_variable, 7675), (sym_deref_expression, 2373), (sym_variable, 7599),
     (sym_var_access, 2373), (sym_fb_body, 9030), (sym_method_decl, 3159), (sym_SFC, 7970),
     (sym_SFC_network, 7612), (sym_initial_step, 7439), (sym_variable_access, 7530),
     (sym_func_call, 2961), (sym_stmt_list, 7970), (sym__stmt, 2024), (sym_assign, 3150),
     (sym_if_stmt, 3150), (sym_case_stmt, 3150), (sym_for_stmt, 3150), (sym_while_stmt, 3150),
     (sym_repeat_stmt, 3150), (sym_raise_stmt, 3150), (sym_try_stmt, 3150),
     (sym_ERR_clause_outside_try, 3150), (sym_begin_path_expression, 2943), (sym_invocation, 2934),
     (sym_any_invocation, 2935), (sym_this_invocation, 2641), (sym_super_invocation, 2641),
     (sym_super_body_invocation, 2935), (sym_path_expression, 2627), (sym_field_expression, 2373),
     (sym_index_expression, 2373), (sym_ladder_diagram, 7970), (sym_fb_diagram, 7970),
     (aux_sym_func_decl_repeat1, 7194), (aux_sym_SFC_repeat1, 7612),
     (aux_sym_stmt_list_repeat1, 2024), (aux_sym_ladder_diagram_repeat1, 8009),
     (aux_sym_fb_diagram_repeat1, 8013), (sym_identifier, 298),
     (aux_sym_ERR_unexpected_this_in_path_token1, 304),
     (aux_sym_ERR_unexpected_super_in_path_token1, 306), (sym_line_comment, 3),
     (anon_sym_LBRACE, 308), (aux_sym_test_pragma_token1, 9), (aux_sym_once_pragma_token1, 11),
     (aux_sym_must_call_pragma_token1, 13), (aux_sym_export_pragma_token1, 15),
     (anon_sym_SEMI, 310), (anon_sym_PERCENT, 312), (aux_sym_fb_decl_token4, 3158),
     (aux_sym_method_decl_token1, 330), (aux_sym_initial_step_token1, 334),
     (aux_sym__stmt_token1, 340), (aux_sym__stmt_token2, 340), (aux_sym__stmt_token3, 340),
     (aux_sym_if_stmt_token1, 342), (aux_sym_case_stmt_token1, 344), (aux_sym_for_stmt_token1, 346),
     (aux_sym_while_stmt_token1, 348), (aux_sym_repeat_stmt_token1, 350),
     (aux_sym_raise_stmt_token1, 352), (aux_sym_try_stmt_token1, 354),
     (aux_sym_try_stmt_token2, 356), (aux_sym_catch_clause_token1, 356),
     (aux_sym_finally_clause_token1, 356), (sym_ld_rung, 358), (sym_fbd_network, 360),
     (sym_c_style_comment, 3), (sym_pascal_style_comment, 3), (sym_pragma, 3)]"

lemma ts_parse_row_1226_scan: "row_scan tokens_63_2 0 ts_parse_row_1226 = Some (Suc (Suc (Suc (Suc 0))))"
  unfolding ts_parse_row_1226_def by simp

text \<open>Lines 189433 to 189517.\<close>

definition ts_parse_row_1227 :: parse_row where
  "ts_parse_row_1227 =
    [(sym_ERR_assign_func_call, 7530), (sym_ERR_unexpected_this_in_path, 2372),
     (sym_ERR_unexpected_super_in_path, 2372), (sym_ERR_method_decl_in_body, 3150),
     (sym_extern_pragma, 7490), (sym_wasm_pragma, 3150), (sym_warn_pragma, 7490),
     (sym_allow_pragma, 3140), (sym_test_pragma, 7490), (sym_once_pragma, 7490),
     (sym_must_call_pragma, 7490), (sym_export_pragma, 7490), (sym_pou_pragma, 7194),
     (sym_direct_variable, 7675), (sym_deref_expression, 2373), (sym_variable, 7599),
     (sym_var_access, 2373), (sym_fb_body, 9495), (sym_method_decl, 3159), (sym_SFC, 7970),
     (sym_SFC_network, 7612), (sym_initial_step, 7439), (sym_variable_access, 7530),
     (sym_func_call, 2961), (sym_stmt_list, 7970), (sym__stmt, 2024), (sym_assign, 3150),
     (sym_if_stmt, 3150), (sym_case_stmt, 3150), (sym_for_stmt, 3150), (sym_while_stmt, 3150),
     (sym_repeat_stmt, 3150), (sym_raise_stmt, 3150), (sym_try_stmt, 3150),
     (sym_ERR_clause_outside_try, 3150), (sym_begin_path_expression, 2943), (sym_invocation, 2934),
     (sym_any_invocation, 2935), (sym_this_invocation, 2641), (sym_super_invocation, 2641),
     (sym_super_body_invocation, 2935), (sym_path_expression, 2627), (sym_field_expression, 2373),
     (sym_index_expression, 2373), (sym_ladder_diagram, 7970), (sym_fb_diagram, 7970),
     (aux_sym_func_decl_repeat1, 7194), (aux_sym_SFC_repeat1, 7612),
     (aux_sym_stmt_list_repeat1, 2024), (aux_sym_ladder_diagram_repeat1, 8009),
     (aux_sym_fb_diagram_repeat1, 8013), (sym_identifier, 298),
     (aux_sym_ERR_unexpected_this_in_path_token1, 304),
     (aux_sym_ERR_unexpected_super_in_path_token1, 306), (sym_line_comment, 3),
     (anon_sym_LBRACE, 308), (aux_sym_test_pragma_token1, 9), (aux_sym_once_pragma_token1, 11),
     (aux_sym_must_call_pragma_token1, 13), (aux_sym_export_pragma_token1, 15),
     (anon_sym_SEMI, 310), (anon_sym_PERCENT, 312), (aux_sym_fb_decl_token4, 3160),
     (aux_sym_method_decl_token1, 330), (aux_sym_initial_step_token1, 334),
     (aux_sym__stmt_token1, 340), (aux_sym__stmt_token2, 340), (aux_sym__stmt_token3, 340),
     (aux_sym_if_stmt_token1, 342), (aux_sym_case_stmt_token1, 344), (aux_sym_for_stmt_token1, 346),
     (aux_sym_while_stmt_token1, 348), (aux_sym_repeat_stmt_token1, 350),
     (aux_sym_raise_stmt_token1, 352), (aux_sym_try_stmt_token1, 354),
     (aux_sym_try_stmt_token2, 356), (aux_sym_catch_clause_token1, 356),
     (aux_sym_finally_clause_token1, 356), (sym_ld_rung, 358), (sym_fbd_network, 360),
     (sym_c_style_comment, 3), (sym_pascal_style_comment, 3), (sym_pragma, 3)]"

lemma ts_parse_row_1227_scan: "row_scan tokens_63_2 0 ts_parse_row_1227 = Some (Suc (Suc (Suc (Suc 0))))"
  unfolding ts_parse_row_1227_def by simp

text \<open>Lines 189518 to 189602.\<close>

definition ts_parse_row_1228 :: parse_row where
  "ts_parse_row_1228 =
    [(sym_ERR_assign_func_call, 7530), (sym_ERR_unexpected_this_in_path, 2372),
     (sym_ERR_unexpected_super_in_path, 2372), (sym_ERR_method_decl_in_body, 3150),
     (sym_extern_pragma, 7490), (sym_wasm_pragma, 3150), (sym_warn_pragma, 7490),
     (sym_allow_pragma, 3140), (sym_test_pragma, 7490), (sym_once_pragma, 7490),
     (sym_must_call_pragma, 7490), (sym_export_pragma, 7490), (sym_pou_pragma, 7194),
     (sym_direct_variable, 7675), (sym_deref_expression, 2373), (sym_variable, 7599),
     (sym_var_access, 2373), (sym_fb_body, 8677), (sym_method_decl, 3159), (sym_SFC, 7970),
     (sym_SFC_network, 7612), (sym_initial_step, 7439), (sym_variable_access, 7530),
     (sym_func_call, 2961), (sym_stmt_list, 7970), (sym__stmt, 2024), (sym_assign, 3150),
     (sym_if_stmt, 3150), (sym_case_stmt, 3150), (sym_for_stmt, 3150), (sym_while_stmt, 3150),
     (sym_repeat_stmt, 3150), (sym_raise_stmt, 3150), (sym_try_stmt, 3150),
     (sym_ERR_clause_outside_try, 3150), (sym_begin_path_expression, 2943), (sym_invocation, 2934),
     (sym_any_invocation, 2935), (sym_this_invocation, 2641), (sym_super_invocation, 2641),
     (sym_super_body_invocation, 2935), (sym_path_expression, 2627), (sym_field_expression, 2373),
     (sym_index_expression, 2373), (sym_ladder_diagram, 7970), (sym_fb_diagram, 7970),
     (aux_sym_func_decl_repeat1, 7194), (aux_sym_SFC_repeat1, 7612),
     (aux_sym_stmt_list_repeat1, 2024), (aux_sym_ladder_diagram_repeat1, 8009),
     (aux_sym_fb_diagram_repeat1, 8013), (sym_identifier, 298),
     (aux_sym_ERR_unexpected_this_in_path_token1, 304),
     (aux_sym_ERR_unexpected_super_in_path_token1, 306), (sym_line_comment, 3),
     (anon_sym_LBRACE, 308), (aux_sym_test_pragma_token1, 9), (aux_sym_once_pragma_token1, 11),
     (aux_sym_must_call_pragma_token1, 13), (aux_sym_export_pragma_token1, 15),
     (anon_sym_SEMI, 310), (anon_sym_PERCENT, 312), (aux_sym_fb_decl_token4, 402),
     (aux_sym_method_decl_token1, 330), (aux_sym_initial_step_token1, 334),
     (aux_sym__stmt_token1, 340), (aux_sym__stmt_token2, 340), (aux_sym__stmt_token3, 340),
     (aux_sym_if_stmt_token1, 342), (aux_sym_case_stmt_token1, 344), (aux_sym_for_stmt_token1, 346),
     (aux_sym_while_stmt_token1, 348), (aux_sym_repeat_stmt_token1, 350),
     (aux_sym_raise_stmt_token1, 352), (aux_sym_try_stmt_token1, 354),
     (aux_sym_try_stmt_token2, 356), (aux_sym_catch_clause_token1, 356),
     (aux_sym_finally_clause_token1, 356), (sym_ld_rung, 358), (sym_fbd_network, 360),
     (sym_c_style_comment, 3), (sym_pascal_style_comment, 3), (sym_pragma, 3)]"

lemma ts_parse_row_1228_scan: "row_scan tokens_63_2 0 ts_parse_row_1228 = Some (Suc (Suc (Suc (Suc 0))))"
  unfolding ts_parse_row_1228_def by simp

text \<open>Lines 189603 to 189687.\<close>

definition ts_parse_row_1229 :: parse_row where
  "ts_parse_row_1229 =
    [(sym_ERR_assign_func_call, 7530), (sym_ERR_unexpected_this_in_path, 2372),
     (sym_ERR_unexpected_super_in_path, 2372), (sym_ERR_method_decl_in_body, 3150),
     (sym_extern_pragma, 7490), (sym_wasm_pragma, 3150), (sym_warn_pragma, 7490),
     (sym_allow_pragma, 3140), (sym_test_pragma, 7490), (sym_once_pragma, 7490),
     (sym_must_call_pragma, 7490), (sym_export_pragma, 7490), (sym_pou_pragma, 7194),
     (sym_direct_variable, 7675), (sym_deref_expression, 2373), (sym_variable, 7599),
     (sym_var_access, 2373), (sym_fb_body, 9555), (sym_method_decl, 3159), (sym_SFC, 7970),
     (sym_SFC_network, 7612), (sym_initial_step, 7439), (sym_variable_access, 7530),
     (sym_func_call, 2961), (sym_stmt_list, 7970), (sym__stmt, 2024), (sym_assign, 3150),
     (sym_if_stmt, 3150), (sym_case_stmt, 3150), (sym_for_stmt, 3150), (sym_while_stmt, 3150),
     (sym_repeat_stmt, 3150), (sym_raise_stmt, 3150), (sym_try_stmt, 3150),
     (sym_ERR_clause_outside_try, 3150), (sym_begin_path_expression, 2943), (sym_invocation, 2934),
     (sym_any_invocation, 2935), (sym_this_invocation, 2641), (sym_super_invocation, 2641),
     (sym_super_body_invocation, 2935), (sym_path_expression, 2627), (sym_field_expression, 2373),
     (sym_index_expression, 2373), (sym_ladder_diagram, 7970), (sym_fb_diagram, 7970),
     (aux_sym_func_decl_repeat1, 7194), (aux_sym_SFC_repeat1, 7612),
     (aux_sym_stmt_list_repeat1, 2024), (aux_sym_ladder_diagram_repeat1, 8009),
     (aux_sym_fb_diagram_repeat1, 8013), (sym_identifier, 298),
     (aux_sym_ERR_unexpected_this_in_path_token1, 304),
     (aux_sym_ERR_unexpected_super_in_path_token1, 306), (sym_line_comment, 3),
     (anon_sym_LBRACE, 308), (aux_sym_test_pragma_token1, 9), (aux_sym_once_pragma_token1, 11),
     (aux_sym_must_call_pragma_token1, 13), (aux_sym_export_pragma_token1, 15),
     (anon_sym_SEMI, 310), (anon_sym_PERCENT, 312), (aux_sym_fb_decl_token4, 3162),
     (aux_sym_method_decl_token1, 330), (aux_sym_initial_step_token1, 334),
     (aux_sym__stmt_token1, 340), (aux_sym__stmt_token2, 340), (aux_sym__stmt_token3, 340),
     (aux_sym_if_stmt_token1, 342), (aux_sym_case_stmt_token1, 344), (aux_sym_for_stmt_token1, 346),
     (aux_sym_while_stmt_token1, 348), (aux_sym_repeat_stmt_token1, 350),
     (aux_sym_raise_stmt_token1, 352), (aux_sym_try_stmt_token1, 354),
     (aux_sym_try_stmt_token2, 356), (aux_sym_catch_clause_token1, 356),
     (aux_sym_finally_clause_token1, 356), (sym_ld_rung, 358), (sym_fbd_network, 360),
     (sym_c_style_comment, 3), (sym_pascal_style_comment, 3), (sym_pragma, 3)]"

lemma ts_parse_row_1229_scan: "row_scan tokens_63_2 0 ts_parse_row_1229 = Some (Suc (Suc (Suc (Suc 0))))"
  unfolding ts_parse_row_1229_def by simp

text \<open>Lines 189688 to 189772.\<close>

definition ts_parse_row_1230 :: parse_row where
  "ts_parse_row_1230 =
    [(sym_ERR_assign_func_call, 7530), (sym_ERR_unexpected_this_in_path, 2372),
     (sym_ERR_unexpected_super_in_path, 2372), (sym_ERR_method_decl_in_body, 3150),
     (sym_extern_pragma, 7490), (sym_wasm_pragma, 3150), (sym_warn_pragma, 7490),
     (sym_allow_pragma, 3140), (sym_test_pragma, 7490), (sym_once_pragma, 7490),
     (sym_must_call_pragma, 7490), (sym_export_pragma, 7490), (sym_pou_pragma, 7194),
     (sym_direct_variable, 7675), (sym_deref_expression, 2373), (sym_variable, 7599),
     (sym_var_access, 2373), (sym_fb_body, 9064), (sym_method_decl, 3159), (sym_SFC, 7970),
     (sym_SFC_network, 7612), (sym_initial_step, 7439), (sym_variable_access, 7530),
     (sym_func_call, 2961), (sym_stmt_list, 7970), (sym__stmt, 2024), (sym_assign, 3150),
     (sym_if_stmt, 3150), (sym_case_stmt, 3150), (sym_for_stmt, 3150), (sym_while_stmt, 3150),
     (sym_repeat_stmt, 3150), (sym_raise_stmt, 3150), (sym_try_stmt, 3150),
     (sym_ERR_clause_outside_try, 3150), (sym_begin_path_expression, 2943), (sym_invocation, 2934),
     (sym_any_invocation, 2935), (sym_this_invocation, 2641), (sym_super_invocation, 2641),
     (sym_super_body_invocation, 2935), (sym_path_expression, 2627), (sym_field_expression, 2373),
     (sym_index_expression, 2373), (sym_ladder_diagram, 7970), (sym_fb_diagram, 7970),
     (aux_sym_func_decl_repeat1, 7194), (aux_sym_SFC_repeat1, 7612),
     (aux_sym_stmt_list_repeat1, 2024), (aux_sym_ladder_diagram_repeat1, 8009),
     (aux_sym_fb_diagram_repeat1, 8013), (sym_identifier, 298),
     (aux_sym_ERR_unexpected_this_in_path_token1, 304),
     (aux_sym_ERR_unexpected_super_in_path_token1, 306), (sym_line_comment, 3),
     (anon_sym_LBRACE, 308), (aux_sym_test_pragma_token1, 9), (aux_sym_once_pragma_token1, 11),
     (aux_sym_must_call_pragma_token1, 13), (aux_sym_export_pragma_token1, 15),
     (anon_sym_SEMI, 310), (anon_sym_PERCENT, 312), (aux_sym_fb_decl_token4, 3164),
     (aux_sym_method_decl_token1, 330), (aux_sym_initial_step_token1, 334),
     (aux_sym__stmt_token1, 340), (aux_sym__stmt_token2, 340), (aux_sym__stmt_token3, 340),
     (aux_sym_if_stmt_token1, 342), (aux_sym_case_stmt_token1, 344), (aux_sym_for_stmt_token1, 346),
     (aux_sym_while_stmt_token1, 348), (aux_sym_repeat_stmt_token1, 350),
     (aux_sym_raise_stmt_token1, 352), (aux_sym_try_stmt_token1, 354),
     (aux_sym_try_stmt_token2, 356), (aux_sym_catch_clause_token1, 356),
     (aux_sym_finally_clause_token1, 356), (sym_ld_rung, 358), (sym_fbd_network, 360),
     (sym_c_style_comment, 3), (sym_pascal_style_comment, 3), (sym_pragma, 3)]"

lemma ts_parse_row_1230_scan: "row_scan tokens_63_2 0 ts_parse_row_1230 = Some (Suc (Suc (Suc (Suc 0))))"
  unfolding ts_parse_row_1230_def by simp

text \<open>Lines 189773 to 189857.\<close>

definition ts_parse_row_1231 :: parse_row where
  "ts_parse_row_1231 =
    [(sym_ERR_assign_func_call, 7530), (sym_ERR_unexpected_this_in_path, 2372),
     (sym_ERR_unexpected_super_in_path, 2372), (sym_ERR_method_decl_in_body, 3150),
     (sym_extern_pragma, 7490), (sym_wasm_pragma, 3150), (sym_warn_pragma, 7490),
     (sym_allow_pragma, 3140), (sym_test_pragma, 7490), (sym_once_pragma, 7490),
     (sym_must_call_pragma, 7490), (sym_export_pragma, 7490), (sym_pou_pragma, 7194),
     (sym_direct_variable, 7675), (sym_deref_expression, 2373), (sym_variable, 7599),
     (sym_var_access, 2373), (sym_fb_body, 9634), (sym_method_decl, 3159), (sym_SFC, 7970),
     (sym_SFC_network, 7612), (sym_initial_step, 7439), (sym_variable_access, 7530),
     (sym_func_call, 2961), (sym_stmt_list, 7970), (sym__stmt, 2024), (sym_assign, 3150),
     (sym_if_stmt, 3150), (sym_case_stmt, 3150), (sym_for_stmt, 3150), (sym_while_stmt, 3150),
     (sym_repeat_stmt, 3150), (sym_raise_stmt, 3150), (sym_try_stmt, 3150),
     (sym_ERR_clause_outside_try, 3150), (sym_begin_path_expression, 2943), (sym_invocation, 2934),
     (sym_any_invocation, 2935), (sym_this_invocation, 2641), (sym_super_invocation, 2641),
     (sym_super_body_invocation, 2935), (sym_path_expression, 2627), (sym_field_expression, 2373),
     (sym_index_expression, 2373), (sym_ladder_diagram, 7970), (sym_fb_diagram, 7970),
     (aux_sym_func_decl_repeat1, 7194), (aux_sym_SFC_repeat1, 7612),
     (aux_sym_stmt_list_repeat1, 2024), (aux_sym_ladder_diagram_repeat1, 8009),
     (aux_sym_fb_diagram_repeat1, 8013), (sym_identifier, 298),
     (aux_sym_ERR_unexpected_this_in_path_token1, 304),
     (aux_sym_ERR_unexpected_super_in_path_token1, 306), (sym_line_comment, 3),
     (anon_sym_LBRACE, 308), (aux_sym_test_pragma_token1, 9), (aux_sym_once_pragma_token1, 11),
     (aux_sym_must_call_pragma_token1, 13), (aux_sym_export_pragma_token1, 15),
     (anon_sym_SEMI, 310), (anon_sym_PERCENT, 312), (aux_sym_fb_decl_token4, 3166),
     (aux_sym_method_decl_token1, 330), (aux_sym_initial_step_token1, 334),
     (aux_sym__stmt_token1, 340), (aux_sym__stmt_token2, 340), (aux_sym__stmt_token3, 340),
     (aux_sym_if_stmt_token1, 342), (aux_sym_case_stmt_token1, 344), (aux_sym_for_stmt_token1, 346),
     (aux_sym_while_stmt_token1, 348), (aux_sym_repeat_stmt_token1, 350),
     (aux_sym_raise_stmt_token1, 352), (aux_sym_try_stmt_token1, 354),
     (aux_sym_try_stmt_token2, 356), (aux_sym_catch_clause_token1, 356),
     (aux_sym_finally_clause_token1, 356), (sym_ld_rung, 358), (sym_fbd_network, 360),
     (sym_c_style_comment, 3), (sym_pascal_style_comment, 3), (sym_pragma, 3)]"

lemma ts_parse_row_1231_scan: "row_scan tokens_63_2 0 ts_parse_row_1231 = Some (Suc (Suc (Suc (Suc 0))))"
  unfolding ts_parse_row_1231_def by simp

text \<open>Lines 189858 to 189942.\<close>

definition ts_parse_row_1232 :: parse_row where
  "ts_parse_row_1232 =
    [(sym_ERR_assign_func_call, 7530), (sym_ERR_unexpected_this_in_path, 2372),
     (sym_ERR_unexpected_super_in_path, 2372), (sym_ERR_method_decl_in_body, 3150),
     (sym_extern_pragma, 7490), (sym_wasm_pragma, 3150), (sym_warn_pragma, 7490),
     (sym_allow_pragma, 3140), (sym_test_pragma, 7490), (sym_once_pragma, 7490),
     (sym_must_call_pragma, 7490), (sym_export_pragma, 7490), (sym_pou_pragma, 7194),
     (sym_direct_variable, 7675), (sym_deref_expression, 2373), (sym_variable, 7599),
     (sym_var_access, 2373), (sym_fb_body, 9646), (sym_method_decl, 3159), (sym_SFC, 7970),
     (sym_SFC_network, 7612), (sym_initial_step, 7439), (sym_variable_access, 7530),
     (sym_func_call, 2961), (sym_stmt_list, 7970), (sym__stmt, 2024), (sym_assign, 3150),
     (sym_if_stmt, 3150), (sym_case_stmt, 3150), (sym_for_stmt, 3150), (sym_while_stmt, 3150),
     (sym_repeat_stmt, 3150), (sym_raise_stmt, 3150), (sym_try_stmt, 3150),
     (sym_ERR_clause_outside_try, 3150), (sym_begin_path_expression, 2943), (sym_invocation, 2934),
     (sym_any_invocation, 2935), (sym_this_invocation, 2641), (sym_super_invocation, 2641),
     (sym_super_body_invocation, 2935), (sym_path_expression, 2627), (sym_field_expression, 2373),
     (sym_index_expression, 2373), (sym_ladder_diagram, 7970), (sym_fb_diagram, 7970),
     (aux_sym_func_decl_repeat1, 7194), (aux_sym_SFC_repeat1, 7612),
     (aux_sym_stmt_list_repeat1, 2024), (aux_sym_ladder_diagram_repeat1, 8009),
     (aux_sym_fb_diagram_repeat1, 8013), (sym_identifier, 298),
     (aux_sym_ERR_unexpected_this_in_path_token1, 304),
     (aux_sym_ERR_unexpected_super_in_path_token1, 306), (sym_line_comment, 3),
     (anon_sym_LBRACE, 308), (aux_sym_test_pragma_token1, 9), (aux_sym_once_pragma_token1, 11),
     (aux_sym_must_call_pragma_token1, 13), (aux_sym_export_pragma_token1, 15),
     (anon_sym_SEMI, 310), (anon_sym_PERCENT, 312), (aux_sym_fb_decl_token4, 3168),
     (aux_sym_method_decl_token1, 330), (aux_sym_initial_step_token1, 334),
     (aux_sym__stmt_token1, 340), (aux_sym__stmt_token2, 340), (aux_sym__stmt_token3, 340),
     (aux_sym_if_stmt_token1, 342), (aux_sym_case_stmt_token1, 344), (aux_sym_for_stmt_token1, 346),
     (aux_sym_while_stmt_token1, 348), (aux_sym_repeat_stmt_token1, 350),
     (aux_sym_raise_stmt_token1, 352), (aux_sym_try_stmt_token1, 354),
     (aux_sym_try_stmt_token2, 356), (aux_sym_catch_clause_token1, 356),
     (aux_sym_finally_clause_token1, 356), (sym_ld_rung, 358), (sym_fbd_network, 360),
     (sym_c_style_comment, 3), (sym_pascal_style_comment, 3), (sym_pragma, 3)]"

lemma ts_parse_row_1232_scan: "row_scan tokens_63_2 0 ts_parse_row_1232 = Some (Suc (Suc (Suc (Suc 0))))"
  unfolding ts_parse_row_1232_def by simp

text \<open>Lines 189943 to 190027.\<close>

definition ts_parse_row_1233 :: parse_row where
  "ts_parse_row_1233 =
    [(sym_ERR_assign_func_call, 7530), (sym_ERR_unexpected_this_in_path, 2372),
     (sym_ERR_unexpected_super_in_path, 2372), (sym_ERR_method_decl_in_body, 3150),
     (sym_extern_pragma, 7490), (sym_wasm_pragma, 3150), (sym_warn_pragma, 7490),
     (sym_allow_pragma, 3140), (sym_test_pragma, 7490), (sym_once_pragma, 7490),
     (sym_must_call_pragma, 7490), (sym_export_pragma, 7490), (sym_pou_pragma, 7194),
     (sym_direct_variable, 7675), (sym_deref_expression, 2373), (sym_variable, 7599),
     (sym_var_access, 2373), (sym_fb_body, 9654), (sym_method_decl, 3159), (sym_SFC, 7970),
     (sym_SFC_network, 7612), (sym_initial_step, 7439), (sym_variable_access, 7530),
     (sym_func_call, 2961), (sym_stmt_list, 7970), (sym__stmt, 2024), (sym_assign, 3150),
     (sym_if_stmt, 3150), (sym_case_stmt, 3150), (sym_for_stmt, 3150), (sym_while_stmt, 3150),
     (sym_repeat_stmt, 3150), (sym_raise_stmt, 3150), (sym_try_stmt, 3150),
     (sym_ERR_clause_outside_try, 3150), (sym_begin_path_expression, 2943), (sym_invocation, 2934),
     (sym_any_invocation, 2935), (sym_this_invocation, 2641), (sym_super_invocation, 2641),
     (sym_super_body_invocation, 2935), (sym_path_expression, 2627), (sym_field_expression, 2373),
     (sym_index_expression, 2373), (sym_ladder_diagram, 7970), (sym_fb_diagram, 7970),
     (aux_sym_func_decl_repeat1, 7194), (aux_sym_SFC_repeat1, 7612),
     (aux_sym_stmt_list_repeat1, 2024), (aux_sym_ladder_diagram_repeat1, 8009),
     (aux_sym_fb_diagram_repeat1, 8013), (sym_identifier, 298),
     (aux_sym_ERR_unexpected_this_in_path_token1, 304),
     (aux_sym_ERR_unexpected_super_in_path_token1, 306), (sym_line_comment, 3),
     (anon_sym_LBRACE, 308), (aux_sym_test_pragma_token1, 9), (aux_sym_once_pragma_token1, 11),
     (aux_sym_must_call_pragma_token1, 13), (aux_sym_export_pragma_token1, 15),
     (anon_sym_SEMI, 310), (anon_sym_PERCENT, 312), (aux_sym_fb_decl_token4, 3170),
     (aux_sym_method_decl_token1, 330), (aux_sym_initial_step_token1, 334),
     (aux_sym__stmt_token1, 340), (aux_sym__stmt_token2, 340), (aux_sym__stmt_token3, 340),
     (aux_sym_if_stmt_token1, 342), (aux_sym_case_stmt_token1, 344), (aux_sym_for_stmt_token1, 346),
     (aux_sym_while_stmt_token1, 348), (aux_sym_repeat_stmt_token1, 350),
     (aux_sym_raise_stmt_token1, 352), (aux_sym_try_stmt_token1, 354),
     (aux_sym_try_stmt_token2, 356), (aux_sym_catch_clause_token1, 356),
     (aux_sym_finally_clause_token1, 356), (sym_ld_rung, 358), (sym_fbd_network, 360),
     (sym_c_style_comment, 3), (sym_pascal_style_comment, 3), (sym_pragma, 3)]"

lemma ts_parse_row_1233_scan: "row_scan tokens_63_2 0 ts_parse_row_1233 = Some (Suc (Suc (Suc (Suc 0))))"
  unfolding ts_parse_row_1233_def by simp

text \<open>Lines 190028 to 190112.\<close>

definition ts_parse_row_1234 :: parse_row where
  "ts_parse_row_1234 =
    [(sym_ERR_assign_func_call, 7530), (sym_ERR_unexpected_this_in_path, 2372),
     (sym_ERR_unexpected_super_in_path, 2372), (sym_ERR_method_decl_in_body, 3150),
     (sym_extern_pragma, 7490), (sym_wasm_pragma, 3150), (sym_warn_pragma, 7490),
     (sym_allow_pragma, 3140), (sym_test_pragma, 7490), (sym_once_pragma, 7490),
     (sym_must_call_pragma, 7490), (sym_export_pragma, 7490), (sym_pou_pragma, 7194),
     (sym_direct_variable, 7675), (sym_deref_expression, 2373), (sym_variable, 7599),
     (sym_var_access, 2373), (sym_fb_body, 9661), (sym_method_decl, 3159), (sym_SFC, 7970),
     (sym_SFC_network, 7612), (sym_initial_step, 7439), (sym_variable_access, 7530),
     (sym_func_call, 2961), (sym_stmt_list, 7970), (sym__stmt, 2024), (sym_assign, 3150),
     (sym_if_stmt, 3150), (sym_case_stmt, 3150), (sym_for_stmt, 3150), (sym_while_stmt, 3150),
     (sym_repeat_stmt, 3150), (sym_raise_stmt, 3150), (sym_try_stmt, 3150),
     (sym_ERR_clause_outside_try, 3150), (sym_begin_path_expression, 2943), (sym_invocation, 2934),
     (sym_any_invocation, 2935), (sym_this_invocation, 2641), (sym_super_invocation, 2641),
     (sym_super_body_invocation, 2935), (sym_path_expression, 2627), (sym_field_expression, 2373),
     (sym_index_expression, 2373), (sym_ladder_diagram, 7970), (sym_fb_diagram, 7970),
     (aux_sym_func_decl_repeat1, 7194), (aux_sym_SFC_repeat1, 7612),
     (aux_sym_stmt_list_repeat1, 2024), (aux_sym_ladder_diagram_repeat1, 8009),
     (aux_sym_fb_diagram_repeat1, 8013), (sym_identifier, 298),
     (aux_sym_ERR_unexpected_this_in_path_token1, 304),
     (aux_sym_ERR_unexpected_super_in_path_token1, 306), (sym_line_comment, 3),
     (anon_sym_LBRACE, 308), (aux_sym_test_pragma_token1, 9), (aux_sym_once_pragma_token1, 11),
     (aux_sym_must_call_pragma_token1, 13), (aux_sym_export_pragma_token1, 15),
     (anon_sym_SEMI, 310), (anon_sym_PERCENT, 312), (aux_sym_fb_decl_token4, 3172),
     (aux_sym_method_decl_token1, 330), (aux_sym_initial_step_token1, 334),
     (aux_sym__stmt_token1, 340), (aux_sym__stmt_token2, 340), (aux_sym__stmt_token3, 340),
     (aux_sym_if_stmt_token1, 342), (aux_sym_case_stmt_token1, 344), (aux_sym_for_stmt_token1, 346),
     (aux_sym_while_stmt_token1, 348), (aux_sym_repeat_stmt_token1, 350),
     (aux_sym_raise_stmt_token1, 352), (aux_sym_try_stmt_token1, 354),
     (aux_sym_try_stmt_token2, 356), (aux_sym_catch_clause_token1, 356),
     (aux_sym_finally_clause_token1, 356), (sym_ld_rung, 358), (sym_fbd_network, 360),
     (sym_c_style_comment, 3), (sym_pascal_style_comment, 3), (sym_pragma, 3)]"

lemma ts_parse_row_1234_scan: "row_scan tokens_63_2 0 ts_parse_row_1234 = Some (Suc (Suc (Suc (Suc 0))))"
  unfolding ts_parse_row_1234_def by simp

text \<open>Lines 190113 to 190197.\<close>

definition ts_parse_row_1235 :: parse_row where
  "ts_parse_row_1235 =
    [(sym_ERR_assign_func_call, 7530), (sym_ERR_unexpected_this_in_path, 2372),
     (sym_ERR_unexpected_super_in_path, 2372), (sym_ERR_method_decl_in_body, 3150),
     (sym_extern_pragma, 7490), (sym_wasm_pragma, 3150), (sym_warn_pragma, 7490),
     (sym_allow_pragma, 3140), (sym_test_pragma, 7490), (sym_once_pragma, 7490),
     (sym_must_call_pragma, 7490), (sym_export_pragma, 7490), (sym_pou_pragma, 7194),
     (sym_direct_variable, 7675), (sym_deref_expression, 2373), (sym_variable, 7599),
     (sym_var_access, 2373), (sym_fb_body, 9705), (sym_method_decl, 3159), (sym_SFC, 7970),
     (sym_SFC_network, 7612), (sym_initial_step, 7439), (sym_variable_access, 7530),
     (sym_func_call, 2961), (sym_stmt_list, 7970), (sym__stmt, 2024), (sym_assign, 3150),
     (sym_if_stmt, 3150), (sym_case_stmt, 3150), (sym_for_stmt, 3150), (sym_while_stmt, 3150),
     (sym_repeat_stmt, 3150), (sym_raise_stmt, 3150), (sym_try_stmt, 3150),
     (sym_ERR_clause_outside_try, 3150), (sym_begin_path_expression, 2943), (sym_invocation, 2934),
     (sym_any_invocation, 2935), (sym_this_invocation, 2641), (sym_super_invocation, 2641),
     (sym_super_body_invocation, 2935), (sym_path_expression, 2627), (sym_field_expression, 2373),
     (sym_index_expression, 2373), (sym_ladder_diagram, 7970), (sym_fb_diagram, 7970),
     (aux_sym_func_decl_repeat1, 7194), (aux_sym_SFC_repeat1, 7612),
     (aux_sym_stmt_list_repeat1, 2024), (aux_sym_ladder_diagram_repeat1, 8009),
     (aux_sym_fb_diagram_repeat1, 8013), (sym_identifier, 298),
     (aux_sym_ERR_unexpected_this_in_path_token1, 304),
     (aux_sym_ERR_unexpected_super_in_path_token1, 306), (sym_line_comment, 3),
     (anon_sym_LBRACE, 308), (aux_sym_test_pragma_token1, 9), (aux_sym_once_pragma_token1, 11),
     (aux_sym_must_call_pragma_token1, 13), (aux_sym_export_pragma_token1, 15),
     (anon_sym_SEMI, 310), (anon_sym_PERCENT, 312), (aux_sym_fb_decl_token4, 3174),
     (aux_sym_method_decl_token1, 330), (aux_sym_initial_step_token1, 334),
     (aux_sym__stmt_token1, 340), (aux_sym__stmt_token2, 340), (aux_sym__stmt_token3, 340),
     (aux_sym_if_stmt_token1, 342), (aux_sym_case_stmt_token1, 344), (aux_sym_for_stmt_token1, 346),
     (aux_sym_while_stmt_token1, 348), (aux_sym_repeat_stmt_token1, 350),
     (aux_sym_raise_stmt_token1, 352), (aux_sym_try_stmt_token1, 354),
     (aux_sym_try_stmt_token2, 356), (aux_sym_catch_clause_token1, 356),
     (aux_sym_finally_clause_token1, 356), (sym_ld_rung, 358), (sym_fbd_network, 360),
     (sym_c_style_comment, 3), (sym_pascal_style_comment, 3), (sym_pragma, 3)]"

lemma ts_parse_row_1235_scan: "row_scan tokens_63_2 0 ts_parse_row_1235 = Some (Suc (Suc (Suc (Suc 0))))"
  unfolding ts_parse_row_1235_def by simp

text \<open>Lines 190198 to 190282.\<close>

definition ts_parse_row_1236 :: parse_row where
  "ts_parse_row_1236 =
    [(sym_ERR_assign_func_call, 7530), (sym_ERR_unexpected_this_in_path, 2372),
     (sym_ERR_unexpected_super_in_path, 2372), (sym_ERR_method_decl_in_body, 3150),
     (sym_extern_pragma, 7490), (sym_wasm_pragma, 3150), (sym_warn_pragma, 7490),
     (sym_allow_pragma, 3140), (sym_test_pragma, 7490), (sym_once_pragma, 7490),
     (sym_must_call_pragma, 7490), (sym_export_pragma, 7490), (sym_pou_pragma, 7194),
     (sym_direct_variable, 7675), (sym_deref_expression, 2373), (sym_variable, 7599),
     (sym_var_access, 2373), (sym_fb_body, 9736), (sym_method_decl, 3159), (sym_SFC, 7970),
     (sym_SFC_network, 7612), (sym_initial_step, 7439), (sym_variable_access, 7530),
     (sym_func_call, 2961), (sym_stmt_list, 7970), (sym__stmt, 2024), (sym_assign, 3150),
     (sym_if_stmt, 3150), (sym_case_stmt, 3150), (sym_for_stmt, 3150), (sym_while_stmt, 3150),
     (sym_repeat_stmt, 3150), (sym_raise_stmt, 3150), (sym_try_stmt, 3150),
     (sym_ERR_clause_outside_try, 3150), (sym_begin_path_expression, 2943), (sym_invocation, 2934),
     (sym_any_invocation, 2935), (sym_this_invocation, 2641), (sym_super_invocation, 2641),
     (sym_super_body_invocation, 2935), (sym_path_expression, 2627), (sym_field_expression, 2373),
     (sym_index_expression, 2373), (sym_ladder_diagram, 7970), (sym_fb_diagram, 7970),
     (aux_sym_func_decl_repeat1, 7194), (aux_sym_SFC_repeat1, 7612),
     (aux_sym_stmt_list_repeat1, 2024), (aux_sym_ladder_diagram_repeat1, 8009),
     (aux_sym_fb_diagram_repeat1, 8013), (sym_identifier, 298),
     (aux_sym_ERR_unexpected_this_in_path_token1, 304),
     (aux_sym_ERR_unexpected_super_in_path_token1, 306), (sym_line_comment, 3),
     (anon_sym_LBRACE, 308), (aux_sym_test_pragma_token1, 9), (aux_sym_once_pragma_token1, 11),
     (aux_sym_must_call_pragma_token1, 13), (aux_sym_export_pragma_token1, 15),
     (anon_sym_SEMI, 310), (anon_sym_PERCENT, 312), (aux_sym_fb_decl_token4, 3176),
     (aux_sym_method_decl_token1, 330), (aux_sym_initial_step_token1, 334),
     (aux_sym__stmt_token1, 340), (aux_sym__stmt_token2, 340), (aux_sym__stmt_token3, 340),
     (aux_sym_if_stmt_token1, 342), (aux_sym_case_stmt_token1, 344), (aux_sym_for_stmt_token1, 346),
     (aux_sym_while_stmt_token1, 348), (aux_sym_repeat_stmt_token1, 350),
     (aux_sym_raise_stmt_token1, 352), (aux_sym_try_stmt_token1, 354),
     (aux_sym_try_stmt_token2, 356), (aux_sym_catch_clause_token1, 356),
     (aux_sym_finally_clause_token1, 356), (sym_ld_rung, 358), (sym_fbd_network, 360),
     (sym_c_style_comment, 3), (sym_pascal_style_comment, 3), (sym_pragma, 3)]"

lemma ts_parse_row_1236_scan: "row_scan tokens_63_2 0 ts_parse_row_1236 = Some (Suc (Suc (Suc (Suc 0))))"
  unfolding ts_parse_row_1236_def by simp

text \<open>Lines 190283 to 190367.\<close>

definition ts_parse_row_1237 :: parse_row where
  "ts_parse_row_1237 =
    [(sym_ERR_assign_func_call, 7530), (sym_ERR_unexpected_this_in_path, 2372),
     (sym_ERR_unexpected_super_in_path, 2372), (sym_ERR_method_decl_in_body, 3150),
     (sym_extern_pragma, 7490), (sym_wasm_pragma, 3150), (sym_warn_pragma, 7490),
     (sym_allow_pragma, 3140), (sym_test_pragma, 7490), (sym_once_pragma, 7490),
     (sym_must_call_pragma, 7490), (sym_export_pragma, 7490), (sym_pou_pragma, 7194),
     (sym_direct_variable, 7675), (sym_deref_expression, 2373), (sym_variable, 7599),
     (sym_var_access, 2373), (sym_fb_body, 9754), (sym_method_decl, 3159), (sym_SFC, 7970),
     (sym_SFC_network, 7612), (sym_initial_step, 7439), (sym_variable_access, 7530),
     (sym_func_call, 2961), (sym_stmt_list, 7970), (sym__stmt, 2024), (sym_assign, 3150),
     (sym_if_stmt, 3150), (sym_case_stmt, 3150), (sym_for_stmt, 3150), (sym_while_stmt, 3150),
     (sym_repeat_stmt, 3150), (sym_raise_stmt, 3150), (sym_try_stmt, 3150),
     (sym_ERR_clause_outside_try, 3150), (sym_begin_path_expression, 2943), (sym_invocation, 2934),
     (sym_any_invocation, 2935), (sym_this_invocation, 2641), (sym_super_invocation, 2641),
     (sym_super_body_invocation, 2935), (sym_path_expression, 2627), (sym_field_expression, 2373),
     (sym_index_expression, 2373), (sym_ladder_diagram, 7970), (sym_fb_diagram, 7970),
     (aux_sym_func_decl_repeat1, 7194), (aux_sym_SFC_repeat1, 7612),
     (aux_sym_stmt_list_repeat1, 2024), (aux_sym_ladder_diagram_repeat1, 8009),
     (aux_sym_fb_diagram_repeat1, 8013), (sym_identifier, 298),
     (aux_sym_ERR_unexpected_this_in_path_token1, 304),
     (aux_sym_ERR_unexpected_super_in_path_token1, 306), (sym_line_comment, 3),
     (anon_sym_LBRACE, 308), (aux_sym_test_pragma_token1, 9), (aux_sym_once_pragma_token1, 11),
     (aux_sym_must_call_pragma_token1, 13), (aux_sym_export_pragma_token1, 15),
     (anon_sym_SEMI, 310), (anon_sym_PERCENT, 312), (aux_sym_fb_decl_token4, 3178),
     (aux_sym_method_decl_token1, 330), (aux_sym_initial_step_token1, 334),
     (aux_sym__stmt_token1, 340), (aux_sym__stmt_token2, 340), (aux_sym__stmt_token3, 340),
     (aux_sym_if_stmt_token1, 342), (aux_sym_case_stmt_token1, 344), (aux_sym_for_stmt_token1, 346),
     (aux_sym_while_stmt_token1, 348), (aux_sym_repeat_stmt_token1, 350),
     (aux_sym_raise_stmt_token1, 352), (aux_sym_try_stmt_token1, 354),
     (aux_sym_try_stmt_token2, 356), (aux_sym_catch_clause_token1, 356),
     (aux_sym_finally_clause_token1, 356), (sym_ld_rung, 358), (sym_fbd_network, 360),
     (sym_c_style_comment, 3), (sym_pascal_style_comment, 3), (sym_pragma, 3)]"

lemma ts_parse_row_1237_scan: "row_scan tokens_63_2 0 ts_parse_row_1237 = Some (Suc (Suc (Suc (Suc 0))))"
  unfolding ts_parse_row_1237_def by simp

text \<open>Lines 190368 to 190452.\<close>

definition ts_parse_row_1238 :: parse_row where
  "ts_parse_row_1238 =
    [(sym_ERR_assign_func_call, 7530), (sym_ERR_unexpected_this_in_path, 2372),
     (sym_ERR_unexpected_super_in_path, 2372), (sym_ERR_method_decl_in_body, 3150),
     (sym_extern_pragma, 7490), (sym_wasm_pragma, 3150), (sym_warn_pragma, 7490),
     (sym_allow_pragma, 3140), (sym_test_pragma, 7490), (sym_once_pragma, 7490),
     (sym_must_call_pragma, 7490), (sym_export_pragma, 7490), (sym_pou_pragma, 7194),
     (sym_direct_variable, 7675), (sym_deref_expression, 2373), (sym_variable, 7599),
     (sym_var_access, 2373), (sym_fb_body, 9759), (sym_method_decl, 3159), (sym_SFC, 7970),
     (sym_SFC_network, 7612), (sym_initial_step, 7439), (sym_variable_access, 7530),
     (sym_func_call, 2961), (sym_stmt_list, 7970), (sym__stmt, 2024), (sym_assign, 3150),
     (sym_if_stmt, 3150), (sym_case_stmt, 3150), (sym_for_stmt, 3150), (sym_while_stmt, 3150),
     (sym_repeat_stmt, 3150), (sym_raise_stmt, 3150), (sym_try_stmt, 3150),
     (sym_ERR_clause_outside_try, 3150), (sym_begin_path_expression, 2943), (sym_invocation, 2934),
     (sym_any_invocation, 2935), (sym_this_invocation, 2641), (sym_super_invocation, 2641),
     (sym_super_body_invocation, 2935), (sym_path_expression, 2627), (sym_field_expression, 2373),
     (sym_index_expression, 2373), (sym_ladder_diagram, 7970), (sym_fb_diagram, 7970),
     (aux_sym_func_decl_repeat1, 7194), (aux_sym_SFC_repeat1, 7612),
     (aux_sym_stmt_list_repeat1, 2024), (aux_sym_ladder_diagram_repeat1, 8009),
     (aux_sym_fb_diagram_repeat1, 8013), (sym_identifier, 298),
     (aux_sym_ERR_unexpected_this_in_path_token1, 304),
     (aux_sym_ERR_unexpected_super_in_path_token1, 306), (sym_line_comment, 3),
     (anon_sym_LBRACE, 308), (aux_sym_test_pragma_token1, 9), (aux_sym_once_pragma_token1, 11),
     (aux_sym_must_call_pragma_token1, 13), (aux_sym_export_pragma_token1, 15),
     (anon_sym_SEMI, 310), (anon_sym_PERCENT, 312), (aux_sym_fb_decl_token4, 3180),
     (aux_sym_method_decl_token1, 330), (aux_sym_initial_step_token1, 334),
     (aux_sym__stmt_token1, 340), (aux_sym__stmt_token2, 340), (aux_sym__stmt_token3, 340),
     (aux_sym_if_stmt_token1, 342), (aux_sym_case_stmt_token1, 344), (aux_sym_for_stmt_token1, 346),
     (aux_sym_while_stmt_token1, 348), (aux_sym_repeat_stmt_token1, 350),
     (aux_sym_raise_stmt_token1, 352), (aux_sym_try_stmt_token1, 354),
     (aux_sym_try_stmt_token2, 356), (aux_sym_catch_clause_token1, 356),
     (aux_sym_finally_clause_token1, 356), (sym_ld_rung, 358), (sym_fbd_network, 360),
     (sym_c_style_comment, 3), (sym_pascal_style_comment, 3), (sym_pragma, 3)]"

lemma ts_parse_row_1238_scan: "row_scan tokens_63_2 0 ts_parse_row_1238 = Some (Suc (Suc (Suc (Suc 0))))"
  unfolding ts_parse_row_1238_def by simp

text \<open>Lines 190453 to 190537.\<close>

definition ts_parse_row_1239 :: parse_row where
  "ts_parse_row_1239 =
    [(sym_ERR_assign_func_call, 7530), (sym_ERR_unexpected_this_in_path, 2372),
     (sym_ERR_unexpected_super_in_path, 2372), (sym_ERR_method_decl_in_body, 3150),
     (sym_extern_pragma, 7490), (sym_wasm_pragma, 3150), (sym_warn_pragma, 7490),
     (sym_allow_pragma, 3140), (sym_test_pragma, 7490), (sym_once_pragma, 7490),
     (sym_must_call_pragma, 7490), (sym_export_pragma, 7490), (sym_pou_pragma, 7194),
     (sym_direct_variable, 7675), (sym_deref_expression, 2373), (sym_variable, 7599),
     (sym_var_access, 2373), (sym_fb_body, 9097), (sym_method_decl, 3159), (sym_SFC, 7970),
     (sym_SFC_network, 7612), (sym_initial_step, 7439), (sym_variable_access, 7530),
     (sym_func_call, 2961), (sym_stmt_list, 7970), (sym__stmt, 2024), (sym_assign, 3150),
     (sym_if_stmt, 3150), (sym_case_stmt, 3150), (sym_for_stmt, 3150), (sym_while_stmt, 3150),
     (sym_repeat_stmt, 3150), (sym_raise_stmt, 3150), (sym_try_stmt, 3150),
     (sym_ERR_clause_outside_try, 3150), (sym_begin_path_expression, 2943), (sym_invocation, 2934),
     (sym_any_invocation, 2935), (sym_this_invocation, 2641), (sym_super_invocation, 2641),
     (sym_super_body_invocation, 2935), (sym_path_expression, 2627), (sym_field_expression, 2373),
     (sym_index_expression, 2373), (sym_ladder_diagram, 7970), (sym_fb_diagram, 7970),
     (aux_sym_func_decl_repeat1, 7194), (aux_sym_SFC_repeat1, 7612),
     (aux_sym_stmt_list_repeat1, 2024), (aux_sym_ladder_diagram_repeat1, 8009),
     (aux_sym_fb_diagram_repeat1, 8013), (sym_identifier, 298),
     (aux_sym_ERR_unexpected_this_in_path_token1, 304),
     (aux_sym_ERR_unexpected_super_in_path_token1, 306), (sym_line_comment, 3),
     (anon_sym_LBRACE, 308), (aux_sym_test_pragma_token1, 9), (aux_sym_once_pragma_token1, 11),
     (aux_sym_must_call_pragma_token1, 13), (aux_sym_export_pragma_token1, 15),
     (anon_sym_SEMI, 310), (anon_sym_PERCENT, 312), (aux_sym_fb_decl_token4, 3182),
     (aux_sym_method_decl_token1, 330), (aux_sym_initial_step_token1, 334),
     (aux_sym__stmt_token1, 340), (aux_sym__stmt_token2, 340), (aux_sym__stmt_token3, 340),
     (aux_sym_if_stmt_token1, 342), (aux_sym_case_stmt_token1, 344), (aux_sym_for_stmt_token1, 346),
     (aux_sym_while_stmt_token1, 348), (aux_sym_repeat_stmt_token1, 350),
     (aux_sym_raise_stmt_token1, 352), (aux_sym_try_stmt_token1, 354),
     (aux_sym_try_stmt_token2, 356), (aux_sym_catch_clause_token1, 356),
     (aux_sym_finally_clause_token1, 356), (sym_ld_rung, 358), (sym_fbd_network, 360),
     (sym_c_style_comment, 3), (sym_pascal_style_comment, 3), (sym_pragma, 3)]"

lemma ts_parse_row_1239_scan: "row_scan tokens_63_2 0 ts_parse_row_1239 = Some (Suc (Suc (Suc (Suc 0))))"
  unfolding ts_parse_row_1239_def by simp

text \<open>Lines 190538 to 190622.\<close>

definition ts_parse_row_1240 :: parse_row where
  "ts_parse_row_1240 =
    [(sym_ERR_assign_func_call, 7530), (sym_ERR_unexpected_this_in_path, 2372),
     (sym_ERR_unexpected_super_in_path, 2372), (sym_ERR_method_decl_in_body, 3150),
     (sym_extern_pragma, 7490), (sym_wasm_pragma, 3150), (sym_warn_pragma, 7490),
     (sym_allow_pragma, 3140), (sym_test_pragma, 7490), (sym_once_pragma, 7490),
     (sym_must_call_pragma, 7490), (sym_export_pragma, 7490), (sym_pou_pragma, 7194),
     (sym_direct_variable, 7675), (sym_deref_expression, 2373), (sym_variable, 7599),
     (sym_var_access, 2373), (sym_fb_body, 9787), (sym_method_decl, 3159), (sym_SFC, 7970),
     (sym_SFC_network, 7612), (sym_initial_step, 7439), (sym_variable_access, 7530),
     (sym_func_call, 2961), (sym_stmt_list, 7970), (sym__stmt, 2024), (sym_assign, 3150),
     (sym_if_stmt, 3150), (sym_case_stmt, 3150), (sym_for_stmt, 3150), (sym_while_stmt, 3150),
     (sym_repeat_stmt, 3150), (sym_raise_stmt, 3150), (sym_try_stmt, 3150),
     (sym_ERR_clause_outside_try, 3150), (sym_begin_path_expression, 2943), (sym_invocation, 2934),
     (sym_any_invocation, 2935), (sym_this_invocation, 2641), (sym_super_invocation, 2641),
     (sym_super_body_invocation, 2935), (sym_path_expression, 2627), (sym_field_expression, 2373),
     (sym_index_expression, 2373), (sym_ladder_diagram, 7970), (sym_fb_diagram, 7970),
     (aux_sym_func_decl_repeat1, 7194), (aux_sym_SFC_repeat1, 7612),
     (aux_sym_stmt_list_repeat1, 2024), (aux_sym_ladder_diagram_repeat1, 8009),
     (aux_sym_fb_diagram_repeat1, 8013), (sym_identifier, 298),
     (aux_sym_ERR_unexpected_this_in_path_token1, 304),
     (aux_sym_ERR_unexpected_super_in_path_token1, 306), (sym_line_comment, 3),
     (anon_sym_LBRACE, 308), (aux_sym_test_pragma_token1, 9), (aux_sym_once_pragma_token1, 11),
     (aux_sym_must_call_pragma_token1, 13), (aux_sym_export_pragma_token1, 15),
     (anon_sym_SEMI, 310), (anon_sym_PERCENT, 312), (aux_sym_fb_decl_token4, 3184),
     (aux_sym_method_decl_token1, 330), (aux_sym_initial_step_token1, 334),
     (aux_sym__stmt_token1, 340), (aux_sym__stmt_token2, 340), (aux_sym__stmt_token3, 340),
     (aux_sym_if_stmt_token1, 342), (aux_sym_case_stmt_token1, 344), (aux_sym_for_stmt_token1, 346),
     (aux_sym_while_stmt_token1, 348), (aux_sym_repeat_stmt_token1, 350),
     (aux_sym_raise_stmt_token1, 352), (aux_sym_try_stmt_token1, 354),
     (aux_sym_try_stmt_token2, 356), (aux_sym_catch_clause_token1, 356),
     (aux_sym_finally_clause_token1, 356), (sym_ld_rung, 358), (sym_fbd_network, 360),
     (sym_c_style_comment, 3), (sym_pascal_style_comment, 3), (sym_pragma, 3)]"

lemma ts_parse_row_1240_scan: "row_scan tokens_63_2 0 ts_parse_row_1240 = Some (Suc (Suc (Suc (Suc 0))))"
  unfolding ts_parse_row_1240_def by simp

text \<open>Lines 190623 to 190707.\<close>

definition ts_parse_row_1241 :: parse_row where
  "ts_parse_row_1241 =
    [(sym_ERR_assign_func_call, 7530), (sym_ERR_unexpected_this_in_path, 2372),
     (sym_ERR_unexpected_super_in_path, 2372), (sym_ERR_method_decl_in_body, 3150),
     (sym_extern_pragma, 7490), (sym_wasm_pragma, 3150), (sym_warn_pragma, 7490),
     (sym_allow_pragma, 3140), (sym_test_pragma, 7490), (sym_once_pragma, 7490),
     (sym_must_call_pragma, 7490), (sym_export_pragma, 7490), (sym_pou_pragma, 7194),
     (sym_direct_variable, 7675), (sym_deref_expression, 2373), (sym_variable, 7599),
     (sym_var_access, 2373), (sym_fb_body, 9809), (sym_method_decl, 3159), (sym_SFC, 7970),
     (sym_SFC_network, 7612), (sym_initial_step, 7439), (sym_variable_access, 7530),
     (sym_func_call, 2961), (sym_stmt_list, 7970), (sym__stmt, 2024), (sym_assign, 3150),
     (sym_if_stmt, 3150), (sym_case_stmt, 3150), (sym_for_stmt, 3150), (sym_while_stmt, 3150),
     (sym_repeat_stmt, 3150), (sym_raise_stmt, 3150), (sym_try_stmt, 3150),
     (sym_ERR_clause_outside_try, 3150), (sym_begin_path_expression, 2943), (sym_invocation, 2934),
     (sym_any_invocation, 2935), (sym_this_invocation, 2641), (sym_super_invocation, 2641),
     (sym_super_body_invocation, 2935), (sym_path_expression, 2627), (sym_field_expression, 2373),
     (sym_index_expression, 2373), (sym_ladder_diagram, 7970), (sym_fb_diagram, 7970),
     (aux_sym_func_decl_repeat1, 7194), (aux_sym_SFC_repeat1, 7612),
     (aux_sym_stmt_list_repeat1, 2024), (aux_sym_ladder_diagram_repeat1, 8009),
     (aux_sym_fb_diagram_repeat1, 8013), (sym_identifier, 298),
     (aux_sym_ERR_unexpected_this_in_path_token1, 304),
     (aux_sym_ERR_unexpected_super_in_path_token1, 306), (sym_line_comment, 3),
     (anon_sym_LBRACE, 308), (aux_sym_test_pragma_token1, 9), (aux_sym_once_pragma_token1, 11),
     (aux_sym_must_call_pragma_token1, 13), (aux_sym_export_pragma_token1, 15),
     (anon_sym_SEMI, 310), (anon_sym_PERCENT, 312), (aux_sym_fb_decl_token4, 3186),
     (aux_sym_method_decl_token1, 330), (aux_sym_initial_step_token1, 334),
     (aux_sym__stmt_token1, 340), (aux_sym__stmt_token2, 340), (aux_sym__stmt_token3, 340),
     (aux_sym_if_stmt_token1, 342), (aux_sym_case_stmt_token1, 344), (aux_sym_for_stmt_token1, 346),
     (aux_sym_while_stmt_token1, 348), (aux_sym_repeat_stmt_token1, 350),
     (aux_sym_raise_stmt_token1, 352), (aux_sym_try_stmt_token1, 354),
     (aux_sym_try_stmt_token2, 356), (aux_sym_catch_clause_token1, 356),
     (aux_sym_finally_clause_token1, 356), (sym_ld_rung, 358), (sym_fbd_network, 360),
     (sym_c_style_comment, 3), (sym_pascal_style_comment, 3), (sym_pragma, 3)]"

lemma ts_parse_row_1241_scan: "row_scan tokens_63_2 0 ts_parse_row_1241 = Some (Suc (Suc (Suc (Suc 0))))"
  unfolding ts_parse_row_1241_def by simp

text \<open>Lines 190708 to 190792.\<close>

definition ts_parse_row_1242 :: parse_row where
  "ts_parse_row_1242 =
    [(sym_ERR_assign_func_call, 7530), (sym_ERR_unexpected_this_in_path, 2372),
     (sym_ERR_unexpected_super_in_path, 2372), (sym_ERR_method_decl_in_body, 3150),
     (sym_extern_pragma, 7490), (sym_wasm_pragma, 3150), (sym_warn_pragma, 7490),
     (sym_allow_pragma, 3140), (sym_test_pragma, 7490), (sym_once_pragma, 7490),
     (sym_must_call_pragma, 7490), (sym_export_pragma, 7490), (sym_pou_pragma, 7194),
     (sym_direct_variable, 7675), (sym_deref_expression, 2373), (sym_variable, 7599),
     (sym_var_access, 2373), (sym_fb_body, 9114), (sym_method_decl, 3159), (sym_SFC, 7970),
     (sym_SFC_network, 7612), (sym_initial_step, 7439), (sym_variable_access, 7530),
     (sym_func_call, 2961), (sym_stmt_list, 7970), (sym__stmt, 2024), (sym_assign, 3150),
     (sym_if_stmt, 3150), (sym_case_stmt, 3150), (sym_for_stmt, 3150), (sym_while_stmt, 3150),
     (sym_repeat_stmt, 3150), (sym_raise_stmt, 3150), (sym_try_stmt, 3150),
     (sym_ERR_clause_outside_try, 3150), (sym_begin_path_expression, 2943), (sym_invocation, 2934),
     (sym_any_invocation, 2935), (sym_this_invocation, 2641), (sym_super_invocation, 2641),
     (sym_super_body_invocation, 2935), (sym_path_expression, 2627), (sym_field_expression, 2373),
     (sym_index_expression, 2373), (sym_ladder_diagram, 7970), (sym_fb_diagram, 7970),
     (aux_sym_func_decl_repeat1, 7194), (aux_sym_SFC_repeat1, 7612),
     (aux_sym_stmt_list_repeat1, 2024), (aux_sym_ladder_diagram_repeat1, 8009),
     (aux_sym_fb_diagram_repeat1, 8013), (sym_identifier, 298),
     (aux_sym_ERR_unexpected_this_in_path_token1, 304),
     (aux_sym_ERR_unexpected_super_in_path_token1, 306), (sym_line_comment, 3),
     (anon_sym_LBRACE, 308), (aux_sym_test_pragma_token1, 9), (aux_sym_once_pragma_token1, 11),
     (aux_sym_must_call_pragma_token1, 13), (aux_sym_export_pragma_token1, 15),
     (anon_sym_SEMI, 310), (anon_sym_PERCENT, 312), (aux_sym_fb_decl_token4, 3188),
     (aux_sym_method_decl_token1, 330), (aux_sym_initial_step_token1, 334),
     (aux_sym__stmt_token1, 340), (aux_sym__stmt_token2, 340), (aux_sym__stmt_token3, 340),
     (aux_sym_if_stmt_token1, 342), (aux_sym_case_stmt_token1, 344), (aux_sym_for_stmt_token1, 346),
     (aux_sym_while_stmt_token1, 348), (aux_sym_repeat_stmt_token1, 350),
     (aux_sym_raise_stmt_token1, 352), (aux_sym_try_stmt_token1, 354),
     (aux_sym_try_stmt_token2, 356), (aux_sym_catch_clause_token1, 356),
     (aux_sym_finally_clause_token1, 356), (sym_ld_rung, 358), (sym_fbd_network, 360),
     (sym_c_style_comment, 3), (sym_pascal_style_comment, 3), (sym_pragma, 3)]"

lemma ts_parse_row_1242_scan: "row_scan tokens_63_2 0 ts_parse_row_1242 = Some (Suc (Suc (Suc (Suc 0))))"
  unfolding ts_parse_row_1242_def by simp

text \<open>Lines 190793 to 190877.\<close>

definition ts_parse_row_1243 :: parse_row where
  "ts_parse_row_1243 =
    [(sym_ERR_assign_func_call, 7530), (sym_ERR_unexpected_this_in_path, 2372),
     (sym_ERR_unexpected_super_in_path, 2372), (sym_ERR_method_decl_in_body, 3150),
     (sym_extern_pragma, 7490), (sym_wasm_pragma, 3150), (sym_warn_pragma, 7490),
     (sym_allow_pragma, 3140), (sym_test_pragma, 7490), (sym_once_pragma, 7490),
     (sym_must_call_pragma, 7490), (sym_export_pragma, 7490), (sym_pou_pragma, 7194),
     (sym_direct_variable, 7675), (sym_deref_expression, 2373), (sym_variable, 7599),
     (sym_var_access, 2373), (sym_fb_body, 9828), (sym_method_decl, 3159), (sym_SFC, 7970),
     (sym_SFC_network, 7612), (sym_initial_step, 7439), (sym_variable_access, 7530),
     (sym_func_call, 2961), (sym_stmt_list, 7970), (sym__stmt, 2024), (sym_assign, 3150),
     (sym_if_stmt, 3150), (sym_case_stmt, 3150), (sym_for_stmt, 3150), (sym_while_stmt, 3150),
     (sym_repeat_stmt, 3150), (sym_raise_stmt, 3150), (sym_try_stmt, 3150),
     (sym_ERR_clause_outside_try, 3150), (sym_begin_path_expression, 2943), (sym_invocation, 2934),
     (sym_any_invocation, 2935), (sym_this_invocation, 2641), (sym_super_invocation, 2641),
     (sym_super_body_invocation, 2935), (sym_path_expression, 2627), (sym_field_expression, 2373),
     (sym_index_expression, 2373), (sym_ladder_diagram, 7970), (sym_fb_diagram, 7970),
     (aux_sym_func_decl_repeat1, 7194), (aux_sym_SFC_repeat1, 7612),
     (aux_sym_stmt_list_repeat1, 2024), (aux_sym_ladder_diagram_repeat1, 8009),
     (aux_sym_fb_diagram_repeat1, 8013), (sym_identifier, 298),
     (aux_sym_ERR_unexpected_this_in_path_token1, 304),
     (aux_sym_ERR_unexpected_super_in_path_token1, 306), (sym_line_comment, 3),
     (anon_sym_LBRACE, 308), (aux_sym_test_pragma_token1, 9), (aux_sym_once_pragma_token1, 11),
     (aux_sym_must_call_pragma_token1, 13), (aux_sym_export_pragma_token1, 15),
     (anon_sym_SEMI, 310), (anon_sym_PERCENT, 312), (aux_sym_fb_decl_token4, 3190),
     (aux_sym_method_decl_token1, 330), (aux_sym_initial_step_token1, 334),
     (aux_sym__stmt_token1, 340), (aux_sym__stmt_token2, 340), (aux_sym__stmt_token3, 340),
     (aux_sym_if_stmt_token1, 342), (aux_sym_case_stmt_token1, 344), (aux_sym_for_stmt_token1, 346),
     (aux_sym_while_stmt_token1, 348), (aux_sym_repeat_stmt_token1, 350),
     (aux_sym_raise_stmt_token1, 352), (aux_sym_try_stmt_token1, 354),
     (aux_sym_try_stmt_token2, 356), (aux_sym_catch_clause_token1, 356),
     (aux_sym_finally_clause_token1, 356), (sym_ld_rung, 358), (sym_fbd_network, 360),
     (sym_c_style_comment, 3), (sym_pascal_style_comment, 3), (sym_pragma, 3)]"

lemma ts_parse_row_1243_scan: "row_scan tokens_63_2 0 ts_parse_row_1243 = Some (Suc (Suc (Suc (Suc 0))))"
  unfolding ts_parse_row_1243_def by simp

text \<open>Lines 190878 to 190962.\<close>

definition ts_parse_row_1244 :: parse_row where
  "ts_parse_row_1244 =
    [(sym_ERR_assign_func_call, 7530), (sym_ERR_unexpected_this_in_path, 2372),
     (sym_ERR_unexpected_super_in_path, 2372), (sym_ERR_method_decl_in_body, 3150),
     (sym_extern_pragma, 7490), (sym_wasm_pragma, 3150), (sym_warn_pragma, 7490),
     (sym_allow_pragma, 3140), (sym_test_pragma, 7490), (sym_once_pragma, 7490),
     (sym_must_call_pragma, 7490), (sym_export_pragma, 7490), (sym_pou_pragma, 7194),
     (sym_direct_variable, 7675), (sym_deref_expression, 2373), (sym_variable, 7599),
     (sym_var_access, 2373), (sym_fb_body, 9125), (sym_method_decl, 3159), (sym_SFC, 7970),
     (sym_SFC_network, 7612), (sym_initial_step, 7439), (sym_variable_access, 7530),
     (sym_func_call, 2961), (sym_stmt_list, 7970), (sym__stmt, 2024), (sym_assign, 3150),
     (sym_if_stmt, 3150), (sym_case_stmt, 3150), (sym_for_stmt, 3150), (sym_while_stmt, 3150),
     (sym_repeat_stmt, 3150), (sym_raise_stmt, 3150), (sym_try_stmt, 3150),
     (sym_ERR_clause_outside_try, 3150), (sym_begin_path_expression, 2943), (sym_invocation, 2934),
     (sym_any_invocation, 2935), (sym_this_invocation, 2641), (sym_super_invocation, 2641),
     (sym_super_body_invocation, 2935), (sym_path_expression, 2627), (sym_field_expression, 2373),
     (sym_index_expression, 2373), (sym_ladder_diagram, 7970), (sym_fb_diagram, 7970),
     (aux_sym_func_decl_repeat1, 7194), (aux_sym_SFC_repeat1, 7612),
     (aux_sym_stmt_list_repeat1, 2024), (aux_sym_ladder_diagram_repeat1, 8009),
     (aux_sym_fb_diagram_repeat1, 8013), (sym_identifier, 298),
     (aux_sym_ERR_unexpected_this_in_path_token1, 304),
     (aux_sym_ERR_unexpected_super_in_path_token1, 306), (sym_line_comment, 3),
     (anon_sym_LBRACE, 308), (aux_sym_test_pragma_token1, 9), (aux_sym_once_pragma_token1, 11),
     (aux_sym_must_call_pragma_token1, 13), (aux_sym_export_pragma_token1, 15),
     (anon_sym_SEMI, 310), (anon_sym_PERCENT, 312), (aux_sym_fb_decl_token4, 3192),
     (aux_sym_method_decl_token1, 330), (aux_sym_initial_step_token1, 334),
     (aux_sym__stmt_token1, 340), (aux_sym__stmt_token2, 340), (aux_sym__stmt_token3, 340),
     (aux_sym_if_stmt_token1, 342), (aux_sym_case_stmt_token1, 344), (aux_sym_for_stmt_token1, 346),
     (aux_sym_while_stmt_token1, 348), (aux_sym_repeat_stmt_token1, 350),
     (aux_sym_raise_stmt_token1, 352), (aux_sym_try_stmt_token1, 354),
     (aux_sym_try_stmt_token2, 356), (aux_sym_catch_clause_token1, 356),
     (aux_sym_finally_clause_token1, 356), (sym_ld_rung, 358), (sym_fbd_network, 360),
     (sym_c_style_comment, 3), (sym_pascal_style_comment, 3), (sym_pragma, 3)]"

lemma ts_parse_row_1244_scan: "row_scan tokens_63_2 0 ts_parse_row_1244 = Some (Suc (Suc (Suc (Suc 0))))"
  unfolding ts_parse_row_1244_def by simp

text \<open>Lines 190963 to 191047.\<close>

definition ts_parse_row_1245 :: parse_row where
  "ts_parse_row_1245 =
    [(sym_ERR_assign_func_call, 7530), (sym_ERR_unexpected_this_in_path, 2372),
     (sym_ERR_unexpected_super_in_path, 2372), (sym_ERR_method_decl_in_body, 3150),
     (sym_extern_pragma, 7490), (sym_wasm_pragma, 3150), (sym_warn_pragma, 7490),
     (sym_allow_pragma, 3140), (sym_test_pragma, 7490), (sym_once_pragma, 7490),
     (sym_must_call_pragma, 7490), (sym_export_pragma, 7490), (sym_pou_pragma, 7194),
     (sym_direct_variable, 7675), (sym_deref_expression, 2373), (sym_variable, 7599),
     (sym_var_access, 2373), (sym_fb_body, 9138), (sym_method_decl, 3159), (sym_SFC, 7970),
     (sym_SFC_network, 7612), (sym_initial_step, 7439), (sym_variable_access, 7530),
     (sym_func_call, 2961), (sym_stmt_list, 7970), (sym__stmt, 2024), (sym_assign, 3150),
     (sym_if_stmt, 3150), (sym_case_stmt, 3150), (sym_for_stmt, 3150), (sym_while_stmt, 3150),
     (sym_repeat_stmt, 3150), (sym_raise_stmt, 3150), (sym_try_stmt, 3150),
     (sym_ERR_clause_outside_try, 3150), (sym_begin_path_expression, 2943), (sym_invocation, 2934),
     (sym_any_invocation, 2935), (sym_this_invocation, 2641), (sym_super_invocation, 2641),
     (sym_super_body_invocation, 2935), (sym_path_expression, 2627), (sym_field_expression, 2373),
     (sym_index_expression, 2373), (sym_ladder_diagram, 7970), (sym_fb_diagram, 7970),
     (aux_sym_func_decl_repeat1, 7194), (aux_sym_SFC_repeat1, 7612),
     (aux_sym_stmt_list_repeat1, 2024), (aux_sym_ladder_diagram_repeat1, 8009),
     (aux_sym_fb_diagram_repeat1, 8013), (sym_identifier, 298),
     (aux_sym_ERR_unexpected_this_in_path_token1, 304),
     (aux_sym_ERR_unexpected_super_in_path_token1, 306), (sym_line_comment, 3),
     (anon_sym_LBRACE, 308), (aux_sym_test_pragma_token1, 9), (aux_sym_once_pragma_token1, 11),
     (aux_sym_must_call_pragma_token1, 13), (aux_sym_export_pragma_token1, 15),
     (anon_sym_SEMI, 310), (anon_sym_PERCENT, 312), (aux_sym_fb_decl_token4, 3194),
     (aux_sym_method_decl_token1, 330), (aux_sym_initial_step_token1, 334),
     (aux_sym__stmt_token1, 340), (aux_sym__stmt_token2, 340), (aux_sym__stmt_token3, 340),
     (aux_sym_if_stmt_token1, 342), (aux_sym_case_stmt_token1, 344), (aux_sym_for_stmt_token1, 346),
     (aux_sym_while_stmt_token1, 348), (aux_sym_repeat_stmt_token1, 350),
     (aux_sym_raise_stmt_token1, 352), (aux_sym_try_stmt_token1, 354),
     (aux_sym_try_stmt_token2, 356), (aux_sym_catch_clause_token1, 356),
     (aux_sym_finally_clause_token1, 356), (sym_ld_rung, 358), (sym_fbd_network, 360),
     (sym_c_style_comment, 3), (sym_pascal_style_comment, 3), (sym_pragma, 3)]"

lemma ts_parse_row_1245_scan: "row_scan tokens_63_2 0 ts_parse_row_1245 = Some (Suc (Suc (Suc (Suc 0))))"
  unfolding ts_parse_row_1245_def by simp

text \<open>Lines 191048 to 191132.\<close>

definition ts_parse_row_1246 :: parse_row where
  "ts_parse_row_1246 =
    [(sym_ERR_assign_func_call, 7530), (sym_ERR_unexpected_this_in_path, 2372),
     (sym_ERR_unexpected_super_in_path, 2372), (sym_ERR_method_decl_in_body, 3150),
     (sym_extern_pragma, 7490), (sym_wasm_pragma, 3150), (sym_warn_pragma, 7490),
     (sym_allow_pragma, 3140), (sym_test_pragma, 7490), (sym_once_pragma, 7490),
     (sym_must_call_pragma, 7490), (sym_export_pragma, 7490), (sym_pou_pragma, 7194),
     (sym_direct_variable, 7675), (sym_deref_expression, 2373), (sym_variable, 7599),
     (sym_var_access, 2373), (sym_fb_body, 9845), (sym_method_decl, 3159), (sym_SFC, 7970),
     (sym_SFC_network, 7612), (sym_initial_step, 7439), (sym_variable_access, 7530),
     (sym_func_call, 2961), (sym_stmt_list, 7970), (sym__stmt, 2024), (sym_assign, 3150),
     (sym_if_stmt, 3150), (sym_case_stmt, 3150), (sym_for_stmt, 3150), (sym_while_stmt, 3150),
     (sym_repeat_stmt, 3150), (sym_raise_stmt, 3150), (sym_try_stmt, 3150),
     (sym_ERR_clause_outside_try, 3150), (sym_begin_path_expression, 2943), (sym_invocation, 2934),
     (sym_any_invocation, 2935), (sym_this_invocation, 2641), (sym_super_invocation, 2641),
     (sym_super_body_invocation, 2935), (sym_path_expression, 2627), (sym_field_expression, 2373),
     (sym_index_expression, 2373), (sym_ladder_diagram, 7970), (sym_fb_diagram, 7970),
     (aux_sym_func_decl_repeat1, 7194), (aux_sym_SFC_repeat1, 7612),
     (aux_sym_stmt_list_repeat1, 2024), (aux_sym_ladder_diagram_repeat1, 8009),
     (aux_sym_fb_diagram_repeat1, 8013), (sym_identifier, 298),
     (aux_sym_ERR_unexpected_this_in_path_token1, 304),
     (aux_sym_ERR_unexpected_super_in_path_token1, 306), (sym_line_comment, 3),
     (anon_sym_LBRACE, 308), (aux_sym_test_pragma_token1, 9), (aux_sym_once_pragma_token1, 11),
     (aux_sym_must_call_pragma_token1, 13), (aux_sym_export_pragma_token1, 15),
     (anon_sym_SEMI, 310), (anon_sym_PERCENT, 312), (aux_sym_fb_decl_token4, 3196),
     (aux_sym_method_decl_token1, 330), (aux_sym_initial_step_token1, 334),
     (aux_sym__stmt_token1, 340), (aux_sym__stmt_token2, 340), (aux_sym__stmt_token3, 340),
     (aux_sym_if_stmt_token1, 342), (aux_sym_case_stmt_token1, 344), (aux_sym_for_stmt_token1, 346),
     (aux_sym_while_stmt_token1, 348), (aux_sym_repeat_stmt_token1, 350),
     (aux_sym_raise_stmt_token1, 352), (aux_sym_try_stmt_token1, 354),
     (aux_sym_try_stmt_token2, 356), (aux_sym_catch_clause_token1, 356),
     (aux_sym_finally_clause_token1, 356), (sym_ld_rung, 358), (sym_fbd_network, 360),
     (sym_c_style_comment, 3), (sym_pascal_style_comment, 3), (sym_pragma, 3)]"

lemma ts_parse_row_1246_scan: "row_scan tokens_63_2 0 ts_parse_row_1246 = Some (Suc (Suc (Suc (Suc 0))))"
  unfolding ts_parse_row_1246_def by simp

text \<open>Lines 191133 to 191217.\<close>

definition ts_parse_row_1247 :: parse_row where
  "ts_parse_row_1247 =
    [(sym_ERR_assign_func_call, 7530), (sym_ERR_unexpected_this_in_path, 2372),
     (sym_ERR_unexpected_super_in_path, 2372), (sym_ERR_method_decl_in_body, 3150),
     (sym_extern_pragma, 7490), (sym_wasm_pragma, 3150), (sym_warn_pragma, 7490),
     (sym_allow_pragma, 3140), (sym_test_pragma, 7490), (sym_once_pragma, 7490),
     (sym_must_call_pragma, 7490), (sym_export_pragma, 7490), (sym_pou_pragma, 7194),
     (sym_direct_variable, 7675), (sym_deref_expression, 2373), (sym_variable, 7599),
     (sym_var_access, 2373), (sym_fb_body, 9857), (sym_method_decl, 3159), (sym_SFC, 7970),
     (sym_SFC_network, 7612), (sym_initial_step, 7439), (sym_variable_access, 7530),
     (sym_func_call, 2961), (sym_stmt_list, 7970), (sym__stmt, 2024), (sym_assign, 3150),
     (sym_if_stmt, 3150), (sym_case_stmt, 3150), (sym_for_stmt, 3150), (sym_while_stmt, 3150),
     (sym_repeat_stmt, 3150), (sym_raise_stmt, 3150), (sym_try_stmt, 3150),
     (sym_ERR_clause_outside_try, 3150), (sym_begin_path_expression, 2943), (sym_invocation, 2934),
     (sym_any_invocation, 2935), (sym_this_invocation, 2641), (sym_super_invocation, 2641),
     (sym_super_body_invocation, 2935), (sym_path_expression, 2627), (sym_field_expression, 2373),
     (sym_index_expression, 2373), (sym_ladder_diagram, 7970), (sym_fb_diagram, 7970),
     (aux_sym_func_decl_repeat1, 7194), (aux_sym_SFC_repeat1, 7612),
     (aux_sym_stmt_list_repeat1, 2024), (aux_sym_ladder_diagram_repeat1, 8009),
     (aux_sym_fb_diagram_repeat1, 8013), (sym_identifier, 298),
     (aux_sym_ERR_unexpected_this_in_path_token1, 304),
     (aux_sym_ERR_unexpected_super_in_path_token1, 306), (sym_line_comment, 3),
     (anon_sym_LBRACE, 308), (aux_sym_test_pragma_token1, 9), (aux_sym_once_pragma_token1, 11),
     (aux_sym_must_call_pragma_token1, 13), (aux_sym_export_pragma_token1, 15),
     (anon_sym_SEMI, 310), (anon_sym_PERCENT, 312), (aux_sym_fb_decl_token4, 3198),
     (aux_sym_method_decl_token1, 330), (aux_sym_initial_step_token1, 334),
     (aux_sym__stmt_token1, 340), (aux_sym__stmt_token2, 340), (aux_sym__stmt_token3, 340),
     (aux_sym_if_stmt_token1, 342), (aux_sym_case_stmt_token1, 344), (aux_sym_for_stmt_token1, 346),
     (aux_sym_while_stmt_token1, 348), (aux_sym_repeat_stmt_token1, 350),
     (aux_sym_raise_stmt_token1, 352), (aux_sym_try_stmt_token1, 354),
     (aux_sym_try_stmt_token2, 356), (aux_sym_catch_clause_token1, 356),
     (aux_sym_finally_clause_token1, 356), (sym_ld_rung, 358), (sym_fbd_network, 360),
     (sym_c_style_comment, 3), (sym_pascal_style_comment, 3), (sym_pragma, 3)]"

lemma ts_parse_row_1247_scan: "row_scan tokens_63_2 0 ts_parse_row_1247 = Some (Suc (Suc (Suc (Suc 0))))"
  unfolding ts_parse_row_1247_def by simp

text \<open>Lines 191218 to 191302.\<close>

definition ts_parse_row_1248 :: parse_row where
  "ts_parse_row_1248 =
    [(sym_ERR_assign_func_call, 7530), (sym_ERR_unexpected_this_in_path, 2372),
     (sym_ERR_unexpected_super_in_path, 2372), (sym_ERR_method_decl_in_body, 3150),
     (sym_extern_pragma, 7490), (sym_wasm_pragma, 3150), (sym_warn_pragma, 7490),
     (sym_allow_pragma, 3140), (sym_test_pragma, 7490), (sym_once_pragma, 7490),
     (sym_must_call_pragma, 7490), (sym_export_pragma, 7490), (sym_pou_pragma, 7194),
     (sym_direct_variable, 7675), (sym_deref_expression, 2373), (sym_variable, 7599),
     (sym_var_access, 2373), (sym_fb_body, 9867), (sym_method_decl, 3159), (sym_SFC, 7970),
     (sym_SFC_network, 7612), (sym_initial_step, 7439), (sym_variable_access, 7530),
     (sym_func_call, 2961), (sym_stmt_list, 7970), (sym__stmt, 2024), (sym_assign, 3150),
     (sym_if_stmt, 3150), (sym_case_stmt, 3150), (sym_for_stmt, 3150), (sym_while_stmt, 3150),
     (sym_repeat_stmt, 3150), (sym_raise_stmt, 3150), (sym_try_stmt, 3150),
     (sym_ERR_clause_outside_try, 3150), (sym_begin_path_expression, 2943), (sym_invocation, 2934),
     (sym_any_invocation, 2935), (sym_this_invocation, 2641), (sym_super_invocation, 2641),
     (sym_super_body_invocation, 2935), (sym_path_expression, 2627), (sym_field_expression, 2373),
     (sym_index_expression, 2373), (sym_ladder_diagram, 7970), (sym_fb_diagram, 7970),
     (aux_sym_func_decl_repeat1, 7194), (aux_sym_SFC_repeat1, 7612),
     (aux_sym_stmt_list_repeat1, 2024), (aux_sym_ladder_diagram_repeat1, 8009),
     (aux_sym_fb_diagram_repeat1, 8013), (sym_identifier, 298),
     (aux_sym_ERR_unexpected_this_in_path_token1, 304),
     (aux_sym_ERR_unexpected_super_in_path_token1, 306), (sym_line_comment, 3),
     (anon_sym_LBRACE, 308), (aux_sym_test_pragma_token1, 9), (aux_sym_once_pragma_token1, 11),
     (aux_sym_must_call_pragma_token1, 13), (aux_sym_export_pragma_token1, 15),
     (anon_sym_SEMI, 310), (anon_sym_PERCENT, 312), (aux_sym_fb_decl_token4, 3200),
     (aux_sym_method_decl_token1, 330), (aux_sym_initial_step_token1, 334),
     (aux_sym__stmt_token1, 340), (aux_sym__stmt_token2, 340), (aux_sym__stmt_token3, 340),
     (aux_sym_if_stmt_token1, 342), (aux_sym_case_stmt_token1, 344), (aux_sym_for_stmt_token1, 346),
     (aux_sym_while_stmt_token1, 348), (aux_sym_repeat_stmt_token1, 350),
     (aux_sym_raise_stmt_token1, 352), (aux_sym_try_stmt_token1, 354),
     (aux_sym_try_stmt_token2, 356), (aux_sym_catch_clause_token1, 356),
     (aux_sym_finally_clause_token1, 356), (sym_ld_rung, 358), (sym_fbd_network, 360),
     (sym_c_style_comment, 3), (sym_pascal_style_comment, 3), (sym_pragma, 3)]"

lemma ts_parse_row_1248_scan: "row_scan tokens_63_2 0 ts_parse_row_1248 = Some (Suc (Suc (Suc (Suc 0))))"
  unfolding ts_parse_row_1248_def by simp

text \<open>Lines 191303 to 191387.\<close>

definition ts_parse_row_1249 :: parse_row where
  "ts_parse_row_1249 =
    [(sym_ERR_assign_func_call, 7530), (sym_ERR_unexpected_this_in_path, 2372),
     (sym_ERR_unexpected_super_in_path, 2372), (sym_ERR_method_decl_in_body, 3150),
     (sym_extern_pragma, 7490), (sym_wasm_pragma, 3150), (sym_warn_pragma, 7490),
     (sym_allow_pragma, 3140), (sym_test_pragma, 7490), (sym_once_pragma, 7490),
     (sym_must_call_pragma, 7490), (sym_export_pragma, 7490), (sym_pou_pragma, 7194),
     (sym_direct_variable, 7675), (sym_deref_expression, 2373), (sym_variable, 7599),
     (sym_var_access, 2373), (sym_fb_body, 9151), (sym_method_decl, 3159), (sym_SFC, 7970),
     (sym_SFC_network, 7612), (sym_initial_step, 7439), (sym_variable_access, 7530),
     (sym_func_call, 2961), (sym_stmt_list, 7970), (sym__stmt, 2024), (sym_assign, 3150),
     (sym_if_stmt, 3150), (sym_case_stmt, 3150), (sym_for_stmt, 3150), (sym_while_stmt, 3150),
     (sym_repeat_stmt, 3150), (sym_raise_stmt, 3150), (sym_try_stmt, 3150),
     (sym_ERR_clause_outside_try, 3150), (sym_begin_path_expression, 2943), (sym_invocation, 2934),
     (sym_any_invocation, 2935), (sym_this_invocation, 2641), (sym_super_invocation, 2641),
     (sym_super_body_invocation, 2935), (sym_path_expression, 2627), (sym_field_expression, 2373),
     (sym_index_expression, 2373), (sym_ladder_diagram, 7970), (sym_fb_diagram, 7970),
     (aux_sym_func_decl_repeat1, 7194), (aux_sym_SFC_repeat1, 7612),
     (aux_sym_stmt_list_repeat1, 2024), (aux_sym_ladder_diagram_repeat1, 8009),
     (aux_sym_fb_diagram_repeat1, 8013), (sym_identifier, 298),
     (aux_sym_ERR_unexpected_this_in_path_token1, 304),
     (aux_sym_ERR_unexpected_super_in_path_token1, 306), (sym_line_comment, 3),
     (anon_sym_LBRACE, 308), (aux_sym_test_pragma_token1, 9), (aux_sym_once_pragma_token1, 11),
     (aux_sym_must_call_pragma_token1, 13), (aux_sym_export_pragma_token1, 15),
     (anon_sym_SEMI, 310), (anon_sym_PERCENT, 312), (aux_sym_fb_decl_token4, 3202),
     (aux_sym_method_decl_token1, 330), (aux_sym_initial_step_token1, 334),
     (aux_sym__stmt_token1, 340), (aux_sym__stmt_token2, 340), (aux_sym__stmt_token3, 340),
     (aux_sym_if_stmt_token1, 342), (aux_sym_case_stmt_token1, 344), (aux_sym_for_stmt_token1, 346),
     (aux_sym_while_stmt_token1, 348), (aux_sym_repeat_stmt_token1, 350),
     (aux_sym_raise_stmt_token1, 352), (aux_sym_try_stmt_token1, 354),
     (aux_sym_try_stmt_token2, 356), (aux_sym_catch_clause_token1, 356),
     (aux_sym_finally_clause_token1, 356), (sym_ld_rung, 358), (sym_fbd_network, 360),
     (sym_c_style_comment, 3), (sym_pascal_style_comment, 3), (sym_pragma, 3)]"

lemma ts_parse_row_1249_scan: "row_scan tokens_63_2 0 ts_parse_row_1249 = Some (Suc (Suc (Suc (Suc 0))))"
  unfolding ts_parse_row_1249_def by simp

text \<open>Lines 191388 to 191472.\<close>

definition ts_parse_row_1250 :: parse_row where
  "ts_parse_row_1250 =
    [(sym_ERR_assign_func_call, 7530), (sym_ERR_unexpected_this_in_path, 2372),
     (sym_ERR_unexpected_super_in_path, 2372), (sym_ERR_method_decl_in_body, 3150),
     (sym_extern_pragma, 7490), (sym_wasm_pragma, 3150), (sym_warn_pragma, 7490),
     (sym_allow_pragma, 3140), (sym_test_pragma, 7490), (sym_once_pragma, 7490),
     (sym_must_call_pragma, 7490), (sym_export_pragma, 7490), (sym_pou_pragma, 7194),
     (sym_direct_variable, 7675), (sym_deref_expression, 2373), (sym_variable, 7599),
     (sym_var_access, 2373), (sym_fb_body, 9158), (sym_method_decl, 3159), (sym_SFC, 7970),
     (sym_SFC_network, 7612), (sym_initial_step, 7439), (sym_variable_access, 7530),
     (sym_func_call, 2961), (sym_stmt_list, 7970), (sym__stmt, 2024), (sym_assign, 3150),
     (sym_if_stmt, 3150), (sym_case_stmt, 3150), (sym_for_stmt, 3150), (sym_while_stmt, 3150),
     (sym_repeat_stmt, 3150), (sym_raise_stmt, 3150), (sym_try_stmt, 3150),
     (sym_ERR_clause_outside_try, 3150), (sym_begin_path_expression, 2943), (sym_invocation, 2934),
     (sym_any_invocation, 2935), (sym_this_invocation, 2641), (sym_super_invocation, 2641),
     (sym_super_body_invocation, 2935), (sym_path_expression, 2627), (sym_field_expression, 2373),
     (sym_index_expression, 2373), (sym_ladder_diagram, 7970), (sym_fb_diagram, 7970),
     (aux_sym_func_decl_repeat1, 7194), (aux_sym_SFC_repeat1, 7612),
     (aux_sym_stmt_list_repeat1, 2024), (aux_sym_ladder_diagram_repeat1, 8009),
     (aux_sym_fb_diagram_repeat1, 8013), (sym_identifier, 298),
     (aux_sym_ERR_unexpected_this_in_path_token1, 304),
     (aux_sym_ERR_unexpected_super_in_path_token1, 306), (sym_line_comment, 3),
     (anon_sym_LBRACE, 308), (aux_sym_test_pragma_token1, 9), (aux_sym_once_pragma_token1, 11),
     (aux_sym_must_call_pragma_token1, 13), (aux_sym_export_pragma_token1, 15),
     (anon_sym_SEMI, 310), (anon_sym_PERCENT, 312), (aux_sym_fb_decl_token4, 3204),
     (aux_sym_method_decl_token1, 330), (aux_sym_initial_step_token1, 334),
     (aux_sym__stmt_token1, 340), (aux_sym__stmt_token2, 340), (aux_sym__stmt_token3, 340),
     (aux_sym_if_stmt_token1, 342), (aux_sym_case_stmt_token1, 344), (aux_sym_for_stmt_token1, 346),
     (aux_sym_while_stmt_token1, 348), (aux_sym_repeat_stmt_token1, 350),
     (aux_sym_raise_stmt_token1, 352), (aux_sym_try_stmt_token1, 354),
     (aux_sym_try_stmt_token2, 356), (aux_sym_catch_clause_token1, 356),
     (aux_sym_finally_clause_token1, 356), (sym_ld_rung, 358), (sym_fbd_network, 360),
     (sym_c_style_comment, 3), (sym_pascal_style_comment, 3), (sym_pragma, 3)]"

lemma ts_parse_row_1250_scan: "row_scan tokens_63_2 0 ts_parse_row_1250 = Some (Suc (Suc (Suc (Suc 0))))"
  unfolding ts_parse_row_1250_def by simp

text \<open>Lines 191473 to 191557.\<close>

definition ts_parse_row_1251 :: parse_row where
  "ts_parse_row_1251 =
    [(sym_ERR_assign_func_call, 7530), (sym_ERR_unexpected_this_in_path, 2372),
     (sym_ERR_unexpected_super_in_path, 2372), (sym_ERR_method_decl_in_body, 3150),
     (sym_extern_pragma, 7490), (sym_wasm_pragma, 3150), (sym_warn_pragma, 7490),
     (sym_allow_pragma, 3140), (sym_test_pragma, 7490), (sym_once_pragma, 7490),
     (sym_must_call_pragma, 7490), (sym_export_pragma, 7490), (sym_pou_pragma, 7194),
     (sym_direct_variable, 7675), (sym_deref_expression, 2373), (sym_variable, 7599),
     (sym_var_access, 2373), (sym_fb_body, 9881), (sym_method_decl, 3159), (sym_SFC, 7970),
     (sym_SFC_network, 7612), (sym_initial_step, 7439), (sym_variable_access, 7530),
     (sym_func_call, 2961), (sym_stmt_list, 7970), (sym__stmt, 2024), (sym_assign, 3150),
     (sym_if_stmt, 3150), (sym_case_stmt, 3150), (sym_for_stmt, 3150), (sym_while_stmt, 3150),
     (sym_repeat_stmt, 3150), (sym_raise_stmt, 3150), (sym_try_stmt, 3150),
     (sym_ERR_clause_outside_try, 3150), (sym_begin_path_expression, 2943), (sym_invocation, 2934),
     (sym_any_invocation, 2935), (sym_this_invocation, 2641), (sym_super_invocation, 2641),
     (sym_super_body_invocation, 2935), (sym_path_expression, 2627), (sym_field_expression, 2373),
     (sym_index_expression, 2373), (sym_ladder_diagram, 7970), (sym_fb_diagram, 7970),
     (aux_sym_func_decl_repeat1, 7194), (aux_sym_SFC_repeat1, 7612),
     (aux_sym_stmt_list_repeat1, 2024), (aux_sym_ladder_diagram_repeat1, 8009),
     (aux_sym_fb_diagram_repeat1, 8013), (sym_identifier, 298),
     (aux_sym_ERR_unexpected_this_in_path_token1, 304),
     (aux_sym_ERR_unexpected_super_in_path_token1, 306), (sym_line_comment, 3),
     (anon_sym_LBRACE, 308), (aux_sym_test_pragma_token1, 9), (aux_sym_once_pragma_token1, 11),
     (aux_sym_must_call_pragma_token1, 13), (aux_sym_export_pragma_token1, 15),
     (anon_sym_SEMI, 310), (anon_sym_PERCENT, 312), (aux_sym_fb_decl_token4, 3206),
     (aux_sym_method_decl_token1, 330), (aux_sym_initial_step_token1, 334),
     (aux_sym__stmt_token1, 340), (aux_sym__stmt_token2, 340), (aux_sym__stmt_token3, 340),
     (aux_sym_if_stmt_token1, 342), (aux_sym_case_stmt_token1, 344), (aux_sym_for_stmt_token1, 346),
     (aux_sym_while_stmt_token1, 348), (aux_sym_repeat_stmt_token1, 350),
     (aux_sym_raise_stmt_token1, 352), (aux_sym_try_stmt_token1, 354),
     (aux_sym_try_stmt_token2, 356), (aux_sym_catch_clause_token1, 356),
     (aux_sym_finally_clause_token1, 356), (sym_ld_rung, 358), (sym_fbd_network, 360),
     (sym_c_style_comment, 3), (sym_pascal_style_comment, 3), (sym_pragma, 3)]"

lemma ts_parse_row_1251_scan: "row_scan tokens_63_2 0 ts_parse_row_1251 = Some (Suc (Suc (Suc (Suc 0))))"
  unfolding ts_parse_row_1251_def by simp

text \<open>Lines 191558 to 191642.\<close>

definition ts_parse_row_1252 :: parse_row where
  "ts_parse_row_1252 =
    [(sym_ERR_assign_func_call, 7530), (sym_ERR_unexpected_this_in_path, 2372),
     (sym_ERR_unexpected_super_in_path, 2372), (sym_ERR_method_decl_in_body, 3150),
     (sym_extern_pragma, 7490), (sym_wasm_pragma, 3150), (sym_warn_pragma, 7490),
     (sym_allow_pragma, 3140), (sym_test_pragma, 7490), (sym_once_pragma, 7490),
     (sym_must_call_pragma, 7490), (sym_export_pragma, 7490), (sym_pou_pragma, 7194),
     (sym_direct_variable, 7675), (sym_deref_expression, 2373), (sym_variable, 7599),
     (sym_var_access, 2373), (sym_fb_body, 9180), (sym_method_decl, 3159), (sym_SFC, 7970),
     (sym_SFC_network, 7612), (sym_initial_step, 7439), (sym_variable_access, 7530),
     (sym_func_call, 2961), (sym_stmt_list, 7970), (sym__stmt, 2024), (sym_assign, 3150),
     (sym_if_stmt, 3150), (sym_case_stmt, 3150), (sym_for_stmt, 3150), (sym_while_stmt, 3150),
     (sym_repeat_stmt, 3150), (sym_raise_stmt, 3150), (sym_try_stmt, 3150),
     (sym_ERR_clause_outside_try, 3150), (sym_begin_path_expression, 2943), (sym_invocation, 2934),
     (sym_any_invocation, 2935), (sym_this_invocation, 2641), (sym_super_invocation, 2641),
     (sym_super_body_invocation, 2935), (sym_path_expression, 2627), (sym_field_expression, 2373),
     (sym_index_expression, 2373), (sym_ladder_diagram, 7970), (sym_fb_diagram, 7970),
     (aux_sym_func_decl_repeat1, 7194), (aux_sym_SFC_repeat1, 7612),
     (aux_sym_stmt_list_repeat1, 2024), (aux_sym_ladder_diagram_repeat1, 8009),
     (aux_sym_fb_diagram_repeat1, 8013), (sym_identifier, 298),
     (aux_sym_ERR_unexpected_this_in_path_token1, 304),
     (aux_sym_ERR_unexpected_super_in_path_token1, 306), (sym_line_comment, 3),
     (anon_sym_LBRACE, 308), (aux_sym_test_pragma_token1, 9), (aux_sym_once_pragma_token1, 11),
     (aux_sym_must_call_pragma_token1, 13), (aux_sym_export_pragma_token1, 15),
     (anon_sym_SEMI, 310), (anon_sym_PERCENT, 312), (aux_sym_fb_decl_token4, 3208),
     (aux_sym_method_decl_token1, 330), (aux_sym_initial_step_token1, 334),
     (aux_sym__stmt_token1, 340), (aux_sym__stmt_token2, 340), (aux_sym__stmt_token3, 340),
     (aux_sym_if_stmt_token1, 342), (aux_sym_case_stmt_token1, 344), (aux_sym_for_stmt_token1, 346),
     (aux_sym_while_stmt_token1, 348), (aux_sym_repeat_stmt_token1, 350),
     (aux_sym_raise_stmt_token1, 352), (aux_sym_try_stmt_token1, 354),
     (aux_sym_try_stmt_token2, 356), (aux_sym_catch_clause_token1, 356),
     (aux_sym_finally_clause_token1, 356), (sym_ld_rung, 358), (sym_fbd_network, 360),
     (sym_c_style_comment, 3), (sym_pascal_style_comment, 3), (sym_pragma, 3)]"

lemma ts_parse_row_1252_scan: "row_scan tokens_63_2 0 ts_parse_row_1252 = Some (Suc (Suc (Suc (Suc 0))))"
  unfolding ts_parse_row_1252_def by simp

text \<open>Lines 191643 to 191727.\<close>

definition ts_parse_row_1253 :: parse_row where
  "ts_parse_row_1253 =
    [(sym_ERR_assign_func_call, 7530), (sym_ERR_unexpected_this_in_path, 2372),
     (sym_ERR_unexpected_super_in_path, 2372), (sym_ERR_method_decl_in_body, 3150),
     (sym_extern_pragma, 7490), (sym_wasm_pragma, 3150), (sym_warn_pragma, 7490),
     (sym_allow_pragma, 3140), (sym_test_pragma, 7490), (sym_once_pragma, 7490),
     (sym_must_call_pragma, 7490), (sym_export_pragma, 7490), (sym_pou_pragma, 7194),
     (sym_direct_variable, 7675), (sym_deref_expression, 2373), (sym_variable, 7599),
     (sym_var_access, 2373), (sym_fb_body, 9902), (sym_method_decl, 3159), (sym_SFC, 7970),
     (sym_SFC_network, 7612), (sym_initial_step, 7439), (sym_variable_access, 7530),
     (sym_func_call, 2961), (sym_stmt_list, 7970), (sym__stmt, 2024), (sym_assign, 3150),
     (sym_if_stmt, 3150), (sym_case_stmt, 3150), (sym_for_stmt, 3150), (sym_while_stmt, 3150),
     (sym_repeat_stmt, 3150), (sym_raise_stmt, 3150), (sym_try_stmt, 3150),
     (sym_ERR_clause_outside_try, 3150), (sym_begin_path_expression, 2943), (sym_invocation, 2934),
     (sym_any_invocation, 2935), (sym_this_invocation, 2641), (sym_super_invocation, 2641),
     (sym_super_body_invocation, 2935), (sym_path_expression, 2627), (sym_field_expression, 2373),
     (sym_index_expression, 2373), (sym_ladder_diagram, 7970), (sym_fb_diagram, 7970),
     (aux_sym_func_decl_repeat1, 7194), (aux_sym_SFC_repeat1, 7612),
     (aux_sym_stmt_list_repeat1, 2024), (aux_sym_ladder_diagram_repeat1, 8009),
     (aux_sym_fb_diagram_repeat1, 8013), (sym_identifier, 298),
     (aux_sym_ERR_unexpected_this_in_path_token1, 304),
     (aux_sym_ERR_unexpected_super_in_path_token1, 306), (sym_line_comment, 3),
     (anon_sym_LBRACE, 308), (aux_sym_test_pragma_token1, 9), (aux_sym_once_pragma_token1, 11),
     (aux_sym_must_call_pragma_token1, 13), (aux_sym_export_pragma_token1, 15),
     (anon_sym_SEMI, 310), (anon_sym_PERCENT, 312), (aux_sym_fb_decl_token4, 3210),
     (aux_sym_method_decl_token1, 330), (aux_sym_initial_step_token1, 334),
     (aux_sym__stmt_token1, 340), (aux_sym__stmt_token2, 340), (aux_sym__stmt_token3, 340),
     (aux_sym_if_stmt_token1, 342), (aux_sym_case_stmt_token1, 344), (aux_sym_for_stmt_token1, 346),
     (aux_sym_while_stmt_token1, 348), (aux_sym_repeat_stmt_token1, 350),
     (aux_sym_raise_stmt_token1, 352), (aux_sym_try_stmt_token1, 354),
     (aux_sym_try_stmt_token2, 356), (aux_sym_catch_clause_token1, 356),
     (aux_sym_finally_clause_token1, 356), (sym_ld_rung, 358), (sym_fbd_network, 360),
     (sym_c_style_comment, 3), (sym_pascal_style_comment, 3), (sym_pragma, 3)]"

lemma ts_parse_row_1253_scan: "row_scan tokens_63_2 0 ts_parse_row_1253 = Some (Suc (Suc (Suc (Suc 0))))"
  unfolding ts_parse_row_1253_def by simp

text \<open>Lines 191728 to 191812.\<close>

definition ts_parse_row_1254 :: parse_row where
  "ts_parse_row_1254 =
    [(sym_ERR_assign_func_call, 7530), (sym_ERR_unexpected_this_in_path, 2372),
     (sym_ERR_unexpected_super_in_path, 2372), (sym_ERR_method_decl_in_body, 3150),
     (sym_extern_pragma, 7490), (sym_wasm_pragma, 3150), (sym_warn_pragma, 7490),
     (sym_allow_pragma, 3140), (sym_test_pragma, 7490), (sym_once_pragma, 7490),
     (sym_must_call_pragma, 7490), (sym_export_pragma, 7490), (sym_pou_pragma, 7194),
     (sym_direct_variable, 7675), (sym_deref_expression, 2373), (sym_variable, 7599),
     (sym_var_access, 2373), (sym_fb_body, 9908), (sym_method_decl, 3159), (sym_SFC, 7970),
     (sym_SFC_network, 7612), (sym_initial_step, 7439), (sym_variable_access, 7530),
     (sym_func_call, 2961), (sym_stmt_list, 7970), (sym__stmt, 2024), (sym_assign, 3150),
     (sym_if_stmt, 3150), (sym_case_stmt, 3150), (sym_for_stmt, 3150), (sym_while_stmt, 3150),
     (sym_repeat_stmt, 3150), (sym_raise_stmt, 3150), (sym_try_stmt, 3150),
     (sym_ERR_clause_outside_try, 3150), (sym_begin_path_expression, 2943), (sym_invocation, 2934),
     (sym_any_invocation, 2935), (sym_this_invocation, 2641), (sym_super_invocation, 2641),
     (sym_super_body_invocation, 2935), (sym_path_expression, 2627), (sym_field_expression, 2373),
     (sym_index_expression, 2373), (sym_ladder_diagram, 7970), (sym_fb_diagram, 7970),
     (aux_sym_func_decl_repeat1, 7194), (aux_sym_SFC_repeat1, 7612),
     (aux_sym_stmt_list_repeat1, 2024), (aux_sym_ladder_diagram_repeat1, 8009),
     (aux_sym_fb_diagram_repeat1, 8013), (sym_identifier, 298),
     (aux_sym_ERR_unexpected_this_in_path_token1, 304),
     (aux_sym_ERR_unexpected_super_in_path_token1, 306), (sym_line_comment, 3),
     (anon_sym_LBRACE, 308), (aux_sym_test_pragma_token1, 9), (aux_sym_once_pragma_token1, 11),
     (aux_sym_must_call_pragma_token1, 13), (aux_sym_export_pragma_token1, 15),
     (anon_sym_SEMI, 310), (anon_sym_PERCENT, 312), (aux_sym_fb_decl_token4, 3212),
     (aux_sym_method_decl_token1, 330), (aux_sym_initial_step_token1, 334),
     (aux_sym__stmt_token1, 340), (aux_sym__stmt_token2, 340), (aux_sym__stmt_token3, 340),
     (aux_sym_if_stmt_token1, 342), (aux_sym_case_stmt_token1, 344), (aux_sym_for_stmt_token1, 346),
     (aux_sym_while_stmt_token1, 348), (aux_sym_repeat_stmt_token1, 350),
     (aux_sym_raise_stmt_token1, 352), (aux_sym_try_stmt_token1, 354),
     (aux_sym_try_stmt_token2, 356), (aux_sym_catch_clause_token1, 356),
     (aux_sym_finally_clause_token1, 356), (sym_ld_rung, 358), (sym_fbd_network, 360),
     (sym_c_style_comment, 3), (sym_pascal_style_comment, 3), (sym_pragma, 3)]"

lemma ts_parse_row_1254_scan: "row_scan tokens_63_2 0 ts_parse_row_1254 = Some (Suc (Suc (Suc (Suc 0))))"
  unfolding ts_parse_row_1254_def by simp

text \<open>Lines 191813 to 191897.\<close>

definition ts_parse_row_1255 :: parse_row where
  "ts_parse_row_1255 =
    [(sym_ERR_assign_func_call, 7530), (sym_ERR_unexpected_this_in_path, 2372),
     (sym_ERR_unexpected_super_in_path, 2372), (sym_ERR_method_decl_in_body, 3150),
     (sym_extern_pragma, 7490), (sym_wasm_pragma, 3150), (sym_warn_pragma, 7490),
     (sym_allow_pragma, 3140), (sym_test_pragma, 7490), (sym_once_pragma, 7490),
     (sym_must_call_pragma, 7490), (sym_export_pragma, 7490), (sym_pou_pragma, 7194),
     (sym_direct_variable, 7675), (sym_deref_expression, 2373), (sym_variable, 7599),
     (sym_var_access, 2373), (sym_fb_body, 9913), (sym_method_decl, 3159), (sym_SFC, 7970),
     (sym_SFC_network, 7612), (sym_initial_step, 7439), (sym_variable_access, 7530),
     (sym_func_call, 2961), (sym_stmt_list, 7970), (sym__stmt, 2024), (sym_assign, 3150),
     (sym_if_stmt, 3150), (sym_case_stmt, 3150), (sym_for_stmt, 3150), (sym_while_stmt, 3150),
     (sym_repeat_stmt, 3150), (sym_raise_stmt, 3150), (sym_try_stmt, 3150),
     (sym_ERR_clause_outside_try, 3150), (sym_begin_path_expression, 2943), (sym_invocation, 2934),
     (sym_any_invocation, 2935), (sym_this_invocation, 2641), (sym_super_invocation, 2641),
     (sym_super_body_invocation, 2935), (sym_path_expression, 2627), (sym_field_expression, 2373),
     (sym_index_expression, 2373), (sym_ladder_diagram, 7970), (sym_fb_diagram, 7970),
     (aux_sym_func_decl_repeat1, 7194), (aux_sym_SFC_repeat1, 7612),
     (aux_sym_stmt_list_repeat1, 2024), (aux_sym_ladder_diagram_repeat1, 8009),
     (aux_sym_fb_diagram_repeat1, 8013), (sym_identifier, 298),
     (aux_sym_ERR_unexpected_this_in_path_token1, 304),
     (aux_sym_ERR_unexpected_super_in_path_token1, 306), (sym_line_comment, 3),
     (anon_sym_LBRACE, 308), (aux_sym_test_pragma_token1, 9), (aux_sym_once_pragma_token1, 11),
     (aux_sym_must_call_pragma_token1, 13), (aux_sym_export_pragma_token1, 15),
     (anon_sym_SEMI, 310), (anon_sym_PERCENT, 312), (aux_sym_fb_decl_token4, 3214),
     (aux_sym_method_decl_token1, 330), (aux_sym_initial_step_token1, 334),
     (aux_sym__stmt_token1, 340), (aux_sym__stmt_token2, 340), (aux_sym__stmt_token3, 340),
     (aux_sym_if_stmt_token1, 342), (aux_sym_case_stmt_token1, 344), (aux_sym_for_stmt_token1, 346),
     (aux_sym_while_stmt_token1, 348), (aux_sym_repeat_stmt_token1, 350),
     (aux_sym_raise_stmt_token1, 352), (aux_sym_try_stmt_token1, 354),
     (aux_sym_try_stmt_token2, 356), (aux_sym_catch_clause_token1, 356),
     (aux_sym_finally_clause_token1, 356), (sym_ld_rung, 358), (sym_fbd_network, 360),
     (sym_c_style_comment, 3), (sym_pascal_style_comment, 3), (sym_pragma, 3)]"

lemma ts_parse_row_1255_scan: "row_scan tokens_63_2 0 ts_parse_row_1255 = Some (Suc (Suc (Suc (Suc 0))))"
  unfolding ts_parse_row_1255_def by simp

text \<open>Lines 191898 to 191982.\<close>

definition ts_parse_row_1256 :: parse_row where
  "ts_parse_row_1256 =
    [(sym_ERR_assign_func_call, 7530), (sym_ERR_unexpected_this_in_path, 2372),
     (sym_ERR_unexpected_super_in_path, 2372), (sym_ERR_method_decl_in_body, 3150),
     (sym_extern_pragma, 7490), (sym_wasm_pragma, 3150), (sym_warn_pragma, 7490),
     (sym_allow_pragma, 3140), (sym_test_pragma, 7490), (sym_once_pragma, 7490),
     (sym_must_call_pragma, 7490), (sym_export_pragma, 7490), (sym_pou_pragma, 7194),
     (sym_direct_variable, 7675), (sym_deref_expression, 2373), (sym_variable, 7599),
     (sym_var_access, 2373), (sym_fb_body, 9922), (sym_method_decl, 3159), (sym_SFC, 7970),
     (sym_SFC_network, 7612), (sym_initial_step, 7439), (sym_variable_access, 7530),
     (sym_func_call, 2961), (sym_stmt_list, 7970), (sym__stmt, 2024), (sym_assign, 3150),
     (sym_if_stmt, 3150), (sym_case_stmt, 3150), (sym_for_stmt, 3150), (sym_while_stmt, 3150),
     (sym_repeat_stmt, 3150), (sym_raise_stmt, 3150), (sym_try_stmt, 3150),
     (sym_ERR_clause_outside_try, 3150), (sym_begin_path_expression, 2943), (sym_invocation, 2934),
     (sym_any_invocation, 2935), (sym_this_invocation, 2641), (sym_super_invocation, 2641),
     (sym_super_body_invocation, 2935), (sym_path_expression, 2627), (sym_field_expression, 2373),
     (sym_index_expression, 2373), (sym_ladder_diagram, 7970), (sym_fb_diagram, 7970),
     (aux_sym_func_decl_repeat1, 7194), (aux_sym_SFC_repeat1, 7612),
     (aux_sym_stmt_list_repeat1, 2024), (aux_sym_ladder_diagram_repeat1, 8009),
     (aux_sym_fb_diagram_repeat1, 8013), (sym_identifier, 298),
     (aux_sym_ERR_unexpected_this_in_path_token1, 304),
     (aux_sym_ERR_unexpected_super_in_path_token1, 306), (sym_line_comment, 3),
     (anon_sym_LBRACE, 308), (aux_sym_test_pragma_token1, 9), (aux_sym_once_pragma_token1, 11),
     (aux_sym_must_call_pragma_token1, 13), (aux_sym_export_pragma_token1, 15),
     (anon_sym_SEMI, 310), (anon_sym_PERCENT, 312), (aux_sym_fb_decl_token4, 3216),
     (aux_sym_method_decl_token1, 330), (aux_sym_initial_step_token1, 334),
     (aux_sym__stmt_token1, 340), (aux_sym__stmt_token2, 340), (aux_sym__stmt_token3, 340),
     (aux_sym_if_stmt_token1, 342), (aux_sym_case_stmt_token1, 344), (aux_sym_for_stmt_token1, 346),
     (aux_sym_while_stmt_token1, 348), (aux_sym_repeat_stmt_token1, 350),
     (aux_sym_raise_stmt_token1, 352), (aux_sym_try_stmt_token1, 354),
     (aux_sym_try_stmt_token2, 356), (aux_sym_catch_clause_token1, 356),
     (aux_sym_finally_clause_token1, 356), (sym_ld_rung, 358), (sym_fbd_network, 360),
     (sym_c_style_comment, 3), (sym_pascal_style_comment, 3), (sym_pragma, 3)]"

lemma ts_parse_row_1256_scan: "row_scan tokens_63_2 0 ts_parse_row_1256 = Some (Suc (Suc (Suc (Suc 0))))"
  unfolding ts_parse_row_1256_def by simp

text \<open>Lines 191983 to 192067.\<close>

definition ts_parse_row_1257 :: parse_row where
  "ts_parse_row_1257 =
    [(sym_ERR_assign_func_call, 7530), (sym_ERR_unexpected_this_in_path, 2372),
     (sym_ERR_unexpected_super_in_path, 2372), (sym_ERR_method_decl_in_body, 3150),
     (sym_extern_pragma, 7490), (sym_wasm_pragma, 3150), (sym_warn_pragma, 7490),
     (sym_allow_pragma, 3140), (sym_test_pragma, 7490), (sym_once_pragma, 7490),
     (sym_must_call_pragma, 7490), (sym_export_pragma, 7490), (sym_pou_pragma, 7194),
     (sym_direct_variable, 7675), (sym_deref_expression, 2373), (sym_variable, 7599),
     (sym_var_access, 2373), (sym_fb_body, 9929), (sym_method_decl, 3159), (sym_SFC, 7970),
     (sym_SFC_network, 7612), (sym_initial_step, 7439), (sym_variable_access, 7530),
     (sym_func_call, 2961), (sym_stmt_list, 7970), (sym__stmt, 2024), (sym_assign, 3150),
     (sym_if_stmt, 3150), (sym_case_stmt, 3150), (sym_for_stmt, 3150), (sym_while_stmt, 3150),
     (sym_repeat_stmt, 3150), (sym_raise_stmt, 3150), (sym_try_stmt, 3150),
     (sym_ERR_clause_outside_try, 3150), (sym_begin_path_expression, 2943), (sym_invocation, 2934),
     (sym_any_invocation, 2935), (sym_this_invocation, 2641), (sym_super_invocation, 2641),
     (sym_super_body_invocation, 2935), (sym_path_expression, 2627), (sym_field_expression, 2373),
     (sym_index_expression, 2373), (sym_ladder_diagram, 7970), (sym_fb_diagram, 7970),
     (aux_sym_func_decl_repeat1, 7194), (aux_sym_SFC_repeat1, 7612),
     (aux_sym_stmt_list_repeat1, 2024), (aux_sym_ladder_diagram_repeat1, 8009),
     (aux_sym_fb_diagram_repeat1, 8013), (sym_identifier, 298),
     (aux_sym_ERR_unexpected_this_in_path_token1, 304),
     (aux_sym_ERR_unexpected_super_in_path_token1, 306), (sym_line_comment, 3),
     (anon_sym_LBRACE, 308), (aux_sym_test_pragma_token1, 9), (aux_sym_once_pragma_token1, 11),
     (aux_sym_must_call_pragma_token1, 13), (aux_sym_export_pragma_token1, 15),
     (anon_sym_SEMI, 310), (anon_sym_PERCENT, 312), (aux_sym_fb_decl_token4, 3218),
     (aux_sym_method_decl_token1, 330), (aux_sym_initial_step_token1, 334),
     (aux_sym__stmt_token1, 340), (aux_sym__stmt_token2, 340), (aux_sym__stmt_token3, 340),
     (aux_sym_if_stmt_token1, 342), (aux_sym_case_stmt_token1, 344), (aux_sym_for_stmt_token1, 346),
     (aux_sym_while_stmt_token1, 348), (aux_sym_repeat_stmt_token1, 350),
     (aux_sym_raise_stmt_token1, 352), (aux_sym_try_stmt_token1, 354),
     (aux_sym_try_stmt_token2, 356), (aux_sym_catch_clause_token1, 356),
     (aux_sym_finally_clause_token1, 356), (sym_ld_rung, 358), (sym_fbd_network, 360),
     (sym_c_style_comment, 3), (sym_pascal_style_comment, 3), (sym_pragma, 3)]"

lemma ts_parse_row_1257_scan: "row_scan tokens_63_2 0 ts_parse_row_1257 = Some (Suc (Suc (Suc (Suc 0))))"
  unfolding ts_parse_row_1257_def by simp

text \<open>Lines 192068 to 192152.\<close>

definition ts_parse_row_1258 :: parse_row where
  "ts_parse_row_1258 =
    [(sym_ERR_assign_func_call, 7530), (sym_ERR_unexpected_this_in_path, 2372),
     (sym_ERR_unexpected_super_in_path, 2372), (sym_ERR_method_decl_in_body, 3150),
     (sym_extern_pragma, 7490), (sym_wasm_pragma, 3150), (sym_warn_pragma, 7490),
     (sym_allow_pragma, 3140), (sym_test_pragma, 7490), (sym_once_pragma, 7490),
     (sym_must_call_pragma, 7490), (sym_export_pragma, 7490), (sym_pou_pragma, 7194),
     (sym_direct_variable, 7675), (sym_deref_expression, 2373), (sym_variable, 7599),
     (sym_var_access, 2373), (sym_fb_body, 9945), (sym_method_decl, 3159), (sym_SFC, 7970),
     (sym_SFC_network, 7612), (sym_initial_step, 7439), (sym_variable_access, 7530),
     (sym_func_call, 2961), (sym_stmt_list, 7970), (sym__stmt, 2024), (sym_assign, 3150),
     (sym_if_stmt, 3150), (sym_case_stmt, 3150), (sym_for_stmt, 3150), (sym_while_stmt, 3150),
     (sym_repeat_stmt, 3150), (sym_raise_stmt, 3150), (sym_try_stmt, 3150),
     (sym_ERR_clause_outside_try, 3150), (sym_begin_path_expression, 2943), (sym_invocation, 2934),
     (sym_any_invocation, 2935), (sym_this_invocation, 2641), (sym_super_invocation, 2641),
     (sym_super_body_invocation, 2935), (sym_path_expression, 2627), (sym_field_expression, 2373),
     (sym_index_expression, 2373), (sym_ladder_diagram, 7970), (sym_fb_diagram, 7970),
     (aux_sym_func_decl_repeat1, 7194), (aux_sym_SFC_repeat1, 7612),
     (aux_sym_stmt_list_repeat1, 2024), (aux_sym_ladder_diagram_repeat1, 8009),
     (aux_sym_fb_diagram_repeat1, 8013), (sym_identifier, 298),
     (aux_sym_ERR_unexpected_this_in_path_token1, 304),
     (aux_sym_ERR_unexpected_super_in_path_token1, 306), (sym_line_comment, 3),
     (anon_sym_LBRACE, 308), (aux_sym_test_pragma_token1, 9), (aux_sym_once_pragma_token1, 11),
     (aux_sym_must_call_pragma_token1, 13), (aux_sym_export_pragma_token1, 15),
     (anon_sym_SEMI, 310), (anon_sym_PERCENT, 312), (aux_sym_fb_decl_token4, 3220),
     (aux_sym_method_decl_token1, 330), (aux_sym_initial_step_token1, 334),
     (aux_sym__stmt_token1, 340), (aux_sym__stmt_token2, 340), (aux_sym__stmt_token3, 340),
     (aux_sym_if_stmt_token1, 342), (aux_sym_case_stmt_token1, 344), (aux_sym_for_stmt_token1, 346),
     (aux_sym_while_stmt_token1, 348), (aux_sym_repeat_stmt_token1, 350),
     (aux_sym_raise_stmt_token1, 352), (aux_sym_try_stmt_token1, 354),
     (aux_sym_try_stmt_token2, 356), (aux_sym_catch_clause_token1, 356),
     (aux_sym_finally_clause_token1, 356), (sym_ld_rung, 358), (sym_fbd_network, 360),
     (sym_c_style_comment, 3), (sym_pascal_style_comment, 3), (sym_pragma, 3)]"

lemma ts_parse_row_1258_scan: "row_scan tokens_63_2 0 ts_parse_row_1258 = Some (Suc (Suc (Suc (Suc 0))))"
  unfolding ts_parse_row_1258_def by simp

text \<open>Lines 192153 to 192237.\<close>

definition ts_parse_row_1259 :: parse_row where
  "ts_parse_row_1259 =
    [(sym_ERR_assign_func_call, 7530), (sym_ERR_unexpected_this_in_path, 2372),
     (sym_ERR_unexpected_super_in_path, 2372), (sym_ERR_method_decl_in_body, 3150),
     (sym_extern_pragma, 7490), (sym_wasm_pragma, 3150), (sym_warn_pragma, 7490),
     (sym_allow_pragma, 3140), (sym_test_pragma, 7490), (sym_once_pragma, 7490),
     (sym_must_call_pragma, 7490), (sym_export_pragma, 7490), (sym_pou_pragma, 7194),
     (sym_direct_variable, 7675), (sym_deref_expression, 2373), (sym_variable, 7599),
     (sym_var_access, 2373), (sym_fb_body, 9952), (sym_method_decl, 3159), (sym_SFC, 7970),
     (sym_SFC_network, 7612), (sym_initial_step, 7439), (sym_variable_access, 7530),
     (sym_func_call, 2961), (sym_stmt_list, 7970), (sym__stmt, 2024), (sym_assign, 3150),
     (sym_if_stmt, 3150), (sym_case_stmt, 3150), (sym_for_stmt, 3150), (sym_while_stmt, 3150),
     (sym_repeat_stmt, 3150), (sym_raise_stmt, 3150), (sym_try_stmt, 3150),
     (sym_ERR_clause_outside_try, 3150), (sym_begin_path_expression, 2943), (sym_invocation, 2934),
     (sym_any_invocation, 2935), (sym_this_invocation, 2641), (sym_super_invocation, 2641),
     (sym_super_body_invocation, 2935), (sym_path_expression, 2627), (sym_field_expression, 2373),
     (sym_index_expression, 2373), (sym_ladder_diagram, 7970), (sym_fb_diagram, 7970),
     (aux_sym_func_decl_repeat1, 7194), (aux_sym_SFC_repeat1, 7612),
     (aux_sym_stmt_list_repeat1, 2024), (aux_sym_ladder_diagram_repeat1, 8009),
     (aux_sym_fb_diagram_repeat1, 8013), (sym_identifier, 298),
     (aux_sym_ERR_unexpected_this_in_path_token1, 304),
     (aux_sym_ERR_unexpected_super_in_path_token1, 306), (sym_line_comment, 3),
     (anon_sym_LBRACE, 308), (aux_sym_test_pragma_token1, 9), (aux_sym_once_pragma_token1, 11),
     (aux_sym_must_call_pragma_token1, 13), (aux_sym_export_pragma_token1, 15),
     (anon_sym_SEMI, 310), (anon_sym_PERCENT, 312), (aux_sym_fb_decl_token4, 3222),
     (aux_sym_method_decl_token1, 330), (aux_sym_initial_step_token1, 334),
     (aux_sym__stmt_token1, 340), (aux_sym__stmt_token2, 340), (aux_sym__stmt_token3, 340),
     (aux_sym_if_stmt_token1, 342), (aux_sym_case_stmt_token1, 344), (aux_sym_for_stmt_token1, 346),
     (aux_sym_while_stmt_token1, 348), (aux_sym_repeat_stmt_token1, 350),
     (aux_sym_raise_stmt_token1, 352), (aux_sym_try_stmt_token1, 354),
     (aux_sym_try_stmt_token2, 356), (aux_sym_catch_clause_token1, 356),
     (aux_sym_finally_clause_token1, 356), (sym_ld_rung, 358), (sym_fbd_network, 360),
     (sym_c_style_comment, 3), (sym_pascal_style_comment, 3), (sym_pragma, 3)]"

lemma ts_parse_row_1259_scan: "row_scan tokens_63_2 0 ts_parse_row_1259 = Some (Suc (Suc (Suc (Suc 0))))"
  unfolding ts_parse_row_1259_def by simp

text \<open>Lines 192238 to 192322.\<close>

definition ts_parse_row_1260 :: parse_row where
  "ts_parse_row_1260 =
    [(sym_ERR_assign_func_call, 7530), (sym_ERR_unexpected_this_in_path, 2372),
     (sym_ERR_unexpected_super_in_path, 2372), (sym_ERR_method_decl_in_body, 3150),
     (sym_extern_pragma, 7490), (sym_wasm_pragma, 3150), (sym_warn_pragma, 7490),
     (sym_allow_pragma, 3140), (sym_test_pragma, 7490), (sym_once_pragma, 7490),
     (sym_must_call_pragma, 7490), (sym_export_pragma, 7490), (sym_pou_pragma, 7194),
     (sym_direct_variable, 7675), (sym_deref_expression, 2373), (sym_variable, 7599),
     (sym_var_access, 2373), (sym_fb_body, 9958), (sym_method_decl, 3159), (sym_SFC, 7970),
     (sym_SFC_network, 7612), (sym_initial_step, 7439), (sym_variable_access, 7530),
     (sym_func_call, 2961), (sym_stmt_list, 7970), (sym__stmt, 2024), (sym_assign, 3150),
     (sym_if_stmt, 3150), (sym_case_stmt, 3150), (sym_for_stmt, 3150), (sym_while_stmt, 3150),
     (sym_repeat_stmt, 3150), (sym_raise_stmt, 3150), (sym_try_stmt, 3150),
     (sym_ERR_clause_outside_try, 3150), (sym_begin_path_expression, 2943), (sym_invocation, 2934),
     (sym_any_invocation, 2935), (sym_this_invocation, 2641), (sym_super_invocation, 2641),
     (sym_super_body_invocation, 2935), (sym_path_expression, 2627), (sym_field_expression, 2373),
     (sym_index_expression, 2373), (sym_ladder_diagram, 7970), (sym_fb_diagram, 7970),
     (aux_sym_func_decl_repeat1, 7194), (aux_sym_SFC_repeat1, 7612),
     (aux_sym_stmt_list_repeat1, 2024), (aux_sym_ladder_diagram_repeat1, 8009),
     (aux_sym_fb_diagram_repeat1, 8013), (sym_identifier, 298),
     (aux_sym_ERR_unexpected_this_in_path_token1, 304),
     (aux_sym_ERR_unexpected_super_in_path_token1, 306), (sym_line_comment, 3),
     (anon_sym_LBRACE, 308), (aux_sym_test_pragma_token1, 9), (aux_sym_once_pragma_token1, 11),
     (aux_sym_must_call_pragma_token1, 13), (aux_sym_export_pragma_token1, 15),
     (anon_sym_SEMI, 310), (anon_sym_PERCENT, 312), (aux_sym_fb_decl_token4, 3224),
     (aux_sym_method_decl_token1, 330), (aux_sym_initial_step_token1, 334),
     (aux_sym__stmt_token1, 340), (aux_sym__stmt_token2, 340), (aux_sym__stmt_token3, 340),
     (aux_sym_if_stmt_token1, 342), (aux_sym_case_stmt_token1, 344), (aux_sym_for_stmt_token1, 346),
     (aux_sym_while_stmt_token1, 348), (aux_sym_repeat_stmt_token1, 350),
     (aux_sym_raise_stmt_token1, 352), (aux_sym_try_stmt_token1, 354),
     (aux_sym_try_stmt_token2, 356), (aux_sym_catch_clause_token1, 356),
     (aux_sym_finally_clause_token1, 356), (sym_ld_rung, 358), (sym_fbd_network, 360),
     (sym_c_style_comment, 3), (sym_pascal_style_comment, 3), (sym_pragma, 3)]"

lemma ts_parse_row_1260_scan: "row_scan tokens_63_2 0 ts_parse_row_1260 = Some (Suc (Suc (Suc (Suc 0))))"
  unfolding ts_parse_row_1260_def by simp

text \<open>Lines 192323 to 192407.\<close>

definition ts_parse_row_1261 :: parse_row where
  "ts_parse_row_1261 =
    [(sym_ERR_assign_func_call, 7530), (sym_ERR_unexpected_this_in_path, 2372),
     (sym_ERR_unexpected_super_in_path, 2372), (sym_ERR_method_decl_in_body, 3150),
     (sym_extern_pragma, 7490), (sym_wasm_pragma, 3150), (sym_warn_pragma, 7490),
     (sym_allow_pragma, 3140), (sym_test_pragma, 7490), (sym_once_pragma, 7490),
     (sym_must_call_pragma, 7490), (sym_export_pragma, 7490), (sym_pou_pragma, 7194),
     (sym_direct_variable, 7675), (sym_deref_expression, 2373), (sym_variable, 7599),
     (sym_var_access, 2373), (sym_fb_body, 9204), (sym_method_decl, 3159), (sym_SFC, 7970),
     (sym_SFC_network, 7612), (sym_initial_step, 7439), (sym_variable_access, 7530),
     (sym_func_call, 2961), (sym_stmt_list, 7970), (sym__stmt, 2024), (sym_assign, 3150),
     (sym_if_stmt, 3150), (sym_case_stmt, 3150), (sym_for_stmt, 3150), (sym_while_stmt, 3150),
     (sym_repeat_stmt, 3150), (sym_raise_stmt, 3150), (sym_try_stmt, 3150),
     (sym_ERR_clause_outside_try, 3150), (sym_begin_path_expression, 2943), (sym_invocation, 2934),
     (sym_any_invocation, 2935), (sym_this_invocation, 2641), (sym_super_invocation, 2641),
     (sym_super_body_invocation, 2935), (sym_path_expression, 2627), (sym_field_expression, 2373),
     (sym_index_expression, 2373), (sym_ladder_diagram, 7970), (sym_fb_diagram, 7970),
     (aux_sym_func_decl_repeat1, 7194), (aux_sym_SFC_repeat1, 7612),
     (aux_sym_stmt_list_repeat1, 2024), (aux_sym_ladder_diagram_repeat1, 8009),
     (aux_sym_fb_diagram_repeat1, 8013), (sym_identifier, 298),
     (aux_sym_ERR_unexpected_this_in_path_token1, 304),
     (aux_sym_ERR_unexpected_super_in_path_token1, 306), (sym_line_comment, 3),
     (anon_sym_LBRACE, 308), (aux_sym_test_pragma_token1, 9), (aux_sym_once_pragma_token1, 11),
     (aux_sym_must_call_pragma_token1, 13), (aux_sym_export_pragma_token1, 15),
     (anon_sym_SEMI, 310), (anon_sym_PERCENT, 312), (aux_sym_fb_decl_token4, 3226),
     (aux_sym_method_decl_token1, 330), (aux_sym_initial_step_token1, 334),
     (aux_sym__stmt_token1, 340), (aux_sym__stmt_token2, 340), (aux_sym__stmt_token3, 340),
     (aux_sym_if_stmt_token1, 342), (aux_sym_case_stmt_token1, 344), (aux_sym_for_stmt_token1, 346),
     (aux_sym_while_stmt_token1, 348), (aux_sym_repeat_stmt_token1, 350),
     (aux_sym_raise_stmt_token1, 352), (aux_sym_try_stmt_token1, 354),
     (aux_sym_try_stmt_token2, 356), (aux_sym_catch_clause_token1, 356),
     (aux_sym_finally_clause_token1, 356), (sym_ld_rung, 358), (sym_fbd_network, 360),
     (sym_c_style_comment, 3), (sym_pascal_style_comment, 3), (sym_pragma, 3)]"

lemma ts_parse_row_1261_scan: "row_scan tokens_63_2 0 ts_parse_row_1261 = Some (Suc (Suc (Suc (Suc 0))))"
  unfolding ts_parse_row_1261_def by simp

text \<open>Lines 192408 to 192492.\<close>

definition ts_parse_row_1262 :: parse_row where
  "ts_parse_row_1262 =
    [(sym_ERR_assign_func_call, 7530), (sym_ERR_unexpected_this_in_path, 2372),
     (sym_ERR_unexpected_super_in_path, 2372), (sym_ERR_method_decl_in_body, 3150),
     (sym_extern_pragma, 7490), (sym_wasm_pragma, 3150), (sym_warn_pragma, 7490),
     (sym_allow_pragma, 3140), (sym_test_pragma, 7490), (sym_once_pragma, 7490),
     (sym_must_call_pragma, 7490), (sym_export_pragma, 7490), (sym_pou_pragma, 7194),
     (sym_direct_variable, 7675), (sym_deref_expression, 2373), (sym_variable, 7599),
     (sym_var_access, 2373), (sym_fb_body, 9965), (sym_method_decl, 3159), (sym_SFC, 7970),
     (sym_SFC_network, 7612), (sym_initial_step, 7439), (sym_variable_access, 7530),
     (sym_func_call, 2961), (sym_stmt_list, 7970), (sym__stmt, 2024), (sym_assign, 3150),
     (sym_if_stmt, 3150), (sym_case_stmt, 3150), (sym_for_stmt, 3150), (sym_while_stmt, 3150),
     (sym_repeat_stmt, 3150), (sym_raise_stmt, 3150), (sym_try_stmt, 3150),
     (sym_ERR_clause_outside_try, 3150), (sym_begin_path_expression, 2943), (sym_invocation, 2934),
     (sym_any_invocation, 2935), (sym_this_invocation, 2641), (sym_super_invocation, 2641),
     (sym_super_body_invocation, 2935), (sym_path_expression, 2627), (sym_field_expression, 2373),
     (sym_index_expression, 2373), (sym_ladder_diagram, 7970), (sym_fb_diagram, 7970),
     (aux_sym_func_decl_repeat1, 7194), (aux_sym_SFC_repeat1, 7612),
     (aux_sym_stmt_list_repeat1, 2024), (aux_sym_ladder_diagram_repeat1, 8009),
     (aux_sym_fb_diagram_repeat1, 8013), (sym_identifier, 298),
     (aux_sym_ERR_unexpected_this_in_path_token1, 304),
     (aux_sym_ERR_unexpected_super_in_path_token1, 306), (sym_line_comment, 3),
     (anon_sym_LBRACE, 308), (aux_sym_test_pragma_token1, 9), (aux_sym_once_pragma_token1, 11),
     (aux_sym_must_call_pragma_token1, 13), (aux_sym_export_pragma_token1, 15),
     (anon_sym_SEMI, 310), (anon_sym_PERCENT, 312), (aux_sym_fb_decl_token4, 3228),
     (aux_sym_method_decl_token1, 330), (aux_sym_initial_step_token1, 334),
     (aux_sym__stmt_token1, 340), (aux_sym__stmt_token2, 340), (aux_sym__stmt_token3, 340),
     (aux_sym_if_stmt_token1, 342), (aux_sym_case_stmt_token1, 344), (aux_sym_for_stmt_token1, 346),
     (aux_sym_while_stmt_token1, 348), (aux_sym_repeat_stmt_token1, 350),
     (aux_sym_raise_stmt_token1, 352), (aux_sym_try_stmt_token1, 354),
     (aux_sym_try_stmt_token2, 356), (aux_sym_catch_clause_token1, 356),
     (aux_sym_finally_clause_token1, 356), (sym_ld_rung, 358), (sym_fbd_network, 360),
     (sym_c_style_comment, 3), (sym_pascal_style_comment, 3), (sym_pragma, 3)]"

lemma ts_parse_row_1262_scan: "row_scan tokens_63_2 0 ts_parse_row_1262 = Some (Suc (Suc (Suc (Suc 0))))"
  unfolding ts_parse_row_1262_def by simp

text \<open>Lines 192493 to 192577.\<close>

definition ts_parse_row_1263 :: parse_row where
  "ts_parse_row_1263 =
    [(sym_ERR_assign_func_call, 7530), (sym_ERR_unexpected_this_in_path, 2372),
     (sym_ERR_unexpected_super_in_path, 2372), (sym_ERR_method_decl_in_body, 3150),
     (sym_extern_pragma, 7490), (sym_wasm_pragma, 3150), (sym_warn_pragma, 7490),
     (sym_allow_pragma, 3140), (sym_test_pragma, 7490), (sym_once_pragma, 7490),
     (sym_must_call_pragma, 7490), (sym_export_pragma, 7490), (sym_pou_pragma, 7194),
     (sym_direct_variable, 7675), (sym_deref_expression, 2373), (sym_variable, 7599),
     (sym_var_access, 2373), (sym_fb_body, 9983), (sym_method_decl, 3159), (sym_SFC, 7970),
     (sym_SFC_network, 7612), (sym_initial_step, 7439), (sym_variable_access, 7530),
     (sym_func_call, 2961), (sym_stmt_list, 7970), (sym__stmt, 2024), (sym_assign, 3150),
     (sym_if_stmt, 3150), (sym_case_stmt, 3150), (sym_for_stmt, 3150), (sym_while_stmt, 3150),
     (sym_repeat_stmt, 3150), (sym_raise_stmt, 3150), (sym_try_stmt, 3150),
     (sym_ERR_clause_outside_try, 3150), (sym_begin_path_expression, 2943), (sym_invocation, 2934),
     (sym_any_invocation, 2935), (sym_this_invocation, 2641), (sym_super_invocation, 2641),
     (sym_super_body_invocation, 2935), (sym_path_expression, 2627), (sym_field_expression, 2373),
     (sym_index_expression, 2373), (sym_ladder_diagram, 7970), (sym_fb_diagram, 7970),
     (aux_sym_func_decl_repeat1, 7194), (aux_sym_SFC_repeat1, 7612),
     (aux_sym_stmt_list_repeat1, 2024), (aux_sym_ladder_diagram_repeat1, 8009),
     (aux_sym_fb_diagram_repeat1, 8013), (sym_identifier, 298),
     (aux_sym_ERR_unexpected_this_in_path_token1, 304),
     (aux_sym_ERR_unexpected_super_in_path_token1, 306), (sym_line_comment, 3),
     (anon_sym_LBRACE, 308), (aux_sym_test_pragma_token1, 9), (aux_sym_once_pragma_token1, 11),
     (aux_sym_must_call_pragma_token1, 13), (aux_sym_export_pragma_token1, 15),
     (anon_sym_SEMI, 310), (anon_sym_PERCENT, 312), (aux_sym_fb_decl_token4, 3230),
     (aux_sym_method_decl_token1, 330), (aux_sym_initial_step_token1, 334),
     (aux_sym__stmt_token1, 340), (aux_sym__stmt_token2, 340), (aux_sym__stmt_token3, 340),
     (aux_sym_if_stmt_token1, 342), (aux_sym_case_stmt_token1, 344), (aux_sym_for_stmt_token1, 346),
     (aux_sym_while_stmt_token1, 348), (aux_sym_repeat_stmt_token1, 350),
     (aux_sym_raise_stmt_token1, 352), (aux_sym_try_stmt_token1, 354),
     (aux_sym_try_stmt_token2, 356), (aux_sym_catch_clause_token1, 356),
     (aux_sym_finally_clause_token1, 356), (sym_ld_rung, 358), (sym_fbd_network, 360),
     (sym_c_style_comment, 3), (sym_pascal_style_comment, 3), (sym_pragma, 3)]"

lemma ts_parse_row_1263_scan: "row_scan tokens_63_2 0 ts_parse_row_1263 = Some (Suc (Suc (Suc (Suc 0))))"
  unfolding ts_parse_row_1263_def by simp

text \<open>Lines 192578 to 192662.\<close>

definition ts_parse_row_1264 :: parse_row where
  "ts_parse_row_1264 =
    [(sym_ERR_assign_func_call, 7530), (sym_ERR_unexpected_this_in_path, 2372),
     (sym_ERR_unexpected_super_in_path, 2372), (sym_ERR_method_decl_in_body, 3150),
     (sym_extern_pragma, 7490), (sym_wasm_pragma, 3150), (sym_warn_pragma, 7490),
     (sym_allow_pragma, 3140), (sym_test_pragma, 7490), (sym_once_pragma, 7490),
     (sym_must_call_pragma, 7490), (sym_export_pragma, 7490), (sym_pou_pragma, 7194),
     (sym_direct_variable, 7675), (sym_deref_expression, 2373), (sym_variable, 7599),
     (sym_var_access, 2373), (sym_fb_body, 9220), (sym_method_decl, 3159), (sym_SFC, 7970),
     (sym_SFC_network, 7612), (sym_initial_step, 7439), (sym_variable_access, 7530),
     (sym_func_call, 2961), (sym_stmt_list, 7970), (sym__stmt, 2024), (sym_assign, 3150),
     (sym_if_stmt, 3150), (sym_case_stmt, 3150), (sym_for_stmt, 3150), (sym_while_stmt, 3150),
     (sym_repeat_stmt, 3150), (sym_raise_stmt, 3150), (sym_try_stmt, 3150),
     (sym_ERR_clause_outside_try, 3150), (sym_begin_path_expression, 2943), (sym_invocation, 2934),
     (sym_any_invocation, 2935), (sym_this_invocation, 2641), (sym_super_invocation, 2641),
     (sym_super_body_invocation, 2935), (sym_path_expression, 2627), (sym_field_expression, 2373),
     (sym_index_expression, 2373), (sym_ladder_diagram, 7970), (sym_fb_diagram, 7970),
     (aux_sym_func_decl_repeat1, 7194), (aux_sym_SFC_repeat1, 7612),
     (aux_sym_stmt_list_repeat1, 2024), (aux_sym_ladder_diagram_repeat1, 8009),
     (aux_sym_fb_diagram_repeat1, 8013), (sym_identifier, 298),
     (aux_sym_ERR_unexpected_this_in_path_token1, 304),
     (aux_sym_ERR_unexpected_super_in_path_token1, 306), (sym_line_comment, 3),
     (anon_sym_LBRACE, 308), (aux_sym_test_pragma_token1, 9), (aux_sym_once_pragma_token1, 11),
     (aux_sym_must_call_pragma_token1, 13), (aux_sym_export_pragma_token1, 15),
     (anon_sym_SEMI, 310), (anon_sym_PERCENT, 312), (aux_sym_fb_decl_token4, 512),
     (aux_sym_method_decl_token1, 330), (aux_sym_initial_step_token1, 334),
     (aux_sym__stmt_token1, 340), (aux_sym__stmt_token2, 340), (aux_sym__stmt_token3, 340),
     (aux_sym_if_stmt_token1, 342), (aux_sym_case_stmt_token1, 344), (aux_sym_for_stmt_token1, 346),
     (aux_sym_while_stmt_token1, 348), (aux_sym_repeat_stmt_token1, 350),
     (aux_sym_raise_stmt_token1, 352), (aux_sym_try_stmt_token1, 354),
     (aux_sym_try_stmt_token2, 356), (aux_sym_catch_clause_token1, 356),
     (aux_sym_finally_clause_token1, 356), (sym_ld_rung, 358), (sym_fbd_network, 360),
     (sym_c_style_comment, 3), (sym_pascal_style_comment, 3), (sym_pragma, 3)]"

lemma ts_parse_row_1264_scan: "row_scan tokens_63_2 0 ts_parse_row_1264 = Some (Suc (Suc (Suc (Suc 0))))"
  unfolding ts_parse_row_1264_def by simp

text \<open>Lines 192663 to 192747.\<close>

definition ts_parse_row_1265 :: parse_row where
  "ts_parse_row_1265 =
    [(sym_ERR_assign_func_call, 7530), (sym_ERR_unexpected_this_in_path, 2372),
     (sym_ERR_unexpected_super_in_path, 2372), (sym_ERR_method_decl_in_body, 3150),
     (sym_extern_pragma, 7490), (sym_wasm_pragma, 3150), (sym_warn_pragma, 7490),
     (sym_allow_pragma, 3140), (sym_test_pragma, 7490), (sym_once_pragma, 7490),
     (sym_must_call_pragma, 7490), (sym_export_pragma, 7490), (sym_pou_pragma, 7194),
     (sym_direct_variable, 7675), (sym_deref_expression, 2373), (sym_variable, 7599),
     (sym_var_access, 2373), (sym_fb_body, 10006), (sym_method_decl, 3159), (sym_SFC, 7970),
     (sym_SFC_network, 7612), (sym_initial_step, 7439), (sym_variable_access, 7530),
     (sym_func_call, 2961), (sym_stmt_list, 7970), (sym__stmt, 2024), (sym_assign, 3150),
     (sym_if_stmt, 3150), (sym_case_stmt, 3150), (sym_for_stmt, 3150), (sym_while_stmt, 3150),
     (sym_repeat_stmt, 3150), (sym_raise_stmt, 3150), (sym_try_stmt, 3150),
     (sym_ERR_clause_outside_try, 3150), (sym_begin_path_expression, 2943), (sym_invocation, 2934),
     (sym_any_invocation, 2935), (sym_this_invocation, 2641), (sym_super_invocation, 2641),
     (sym_super_body_invocation, 2935), (sym_path_expression, 2627), (sym_field_expression, 2373),
     (sym_index_expression, 2373), (sym_ladder_diagram, 7970), (sym_fb_diagram, 7970),
     (aux_sym_func_decl_repeat1, 7194), (aux_sym_SFC_repeat1, 7612),
     (aux_sym_stmt_list_repeat1, 2024), (aux_sym_ladder_diagram_repeat1, 8009),
     (aux_sym_fb_diagram_repeat1, 8013), (sym_identifier, 298),
     (aux_sym_ERR_unexpected_this_in_path_token1, 304),
     (aux_sym_ERR_unexpected_super_in_path_token1, 306), (sym_line_comment, 3),
     (anon_sym_LBRACE, 308), (aux_sym_test_pragma_token1, 9), (aux_sym_once_pragma_token1, 11),
     (aux_sym_must_call_pragma_token1, 13), (aux_sym_export_pragma_token1, 15),
     (anon_sym_SEMI, 310), (anon_sym_PERCENT, 312), (aux_sym_fb_decl_token4, 3232),
     (aux_sym_method_decl_token1, 330), (aux_sym_initial_step_token1, 334),
     (aux_sym__stmt_token1, 340), (aux_sym__stmt_token2, 340), (aux_sym__stmt_token3, 340),
     (aux_sym_if_stmt_token1, 342), (aux_sym_case_stmt_token1, 344), (aux_sym_for_stmt_token1, 346),
     (aux_sym_while_stmt_token1, 348), (aux_sym_repeat_stmt_token1, 350),
     (aux_sym_raise_stmt_token1, 352), (aux_sym_try_stmt_token1, 354),
     (aux_sym_try_stmt_token2, 356), (aux_sym_catch_clause_token1, 356),
     (aux_sym_finally_clause_token1, 356), (sym_ld_rung, 358), (sym_fbd_network, 360),
     (sym_c_style_comment, 3), (sym_pascal_style_comment, 3), (sym_pragma, 3)]"

lemma ts_parse_row_1265_scan: "row_scan tokens_63_2 0 ts_parse_row_1265 = Some (Suc (Suc (Suc (Suc 0))))"
  unfolding ts_parse_row_1265_def by simp

text \<open>Lines 192748 to 192832.\<close>

definition ts_parse_row_1266 :: parse_row where
  "ts_parse_row_1266 =
    [(sym_ERR_assign_func_call, 7530), (sym_ERR_unexpected_this_in_path, 2372),
     (sym_ERR_unexpected_super_in_path, 2372), (sym_ERR_method_decl_in_body, 3150),
     (sym_extern_pragma, 7490), (sym_wasm_pragma, 3150), (sym_warn_pragma, 7490),
     (sym_allow_pragma, 3140), (sym_test_pragma, 7490), (sym_once_pragma, 7490),
     (sym_must_call_pragma, 7490), (sym_export_pragma, 7490), (sym_pou_pragma, 7194),
     (sym_direct_variable, 7675), (sym_deref_expression, 2373), (sym_variable, 7599),
     (sym_var_access, 2373), (sym_fb_body, 10021), (sym_method_decl, 3159), (sym_SFC, 7970),
     (sym_SFC_network, 7612), (sym_initial_step, 7439), (sym_variable_access, 7530),
     (sym_func_call, 2961), (sym_stmt_list, 7970), (sym__stmt, 2024), (sym_assign, 3150),
     (sym_if_stmt, 3150), (sym_case_stmt, 3150), (sym_for_stmt, 3150), (sym_while_stmt, 3150),
     (sym_repeat_stmt, 3150), (sym_raise_stmt, 3150), (sym_try_stmt, 3150),
     (sym_ERR_clause_outside_try, 3150), (sym_begin_path_expression, 2943), (sym_invocation, 2934),
     (sym_any_invocation, 2935), (sym_this_invocation, 2641), (sym_super_invocation, 2641),
     (sym_super_body_invocation, 2935), (sym_path_expression, 2627), (sym_field_expression, 2373),
     (sym_index_expression, 2373), (sym_ladder_diagram, 7970), (sym_fb_diagram, 7970),
     (aux_sym_func_decl_repeat1, 7194), (aux_sym_SFC_repeat1, 7612),
     (aux_sym_stmt_list_repeat1, 2024), (aux_sym_ladder_diagram_repeat1, 8009),
     (aux_sym_fb_diagram_repeat1, 8013), (sym_identifier, 298),
     (aux_sym_ERR_unexpected_this_in_path_token1, 304),
     (aux_sym_ERR_unexpected_super_in_path_token1, 306), (sym_line_comment, 3),
     (anon_sym_LBRACE, 308), (aux_sym_test_pragma_token1, 9), (aux_sym_once_pragma_token1, 11),
     (aux_sym_must_call_pragma_token1, 13), (aux_sym_export_pragma_token1, 15),
     (anon_sym_SEMI, 310), (anon_sym_PERCENT, 312), (aux_sym_fb_decl_token4, 3234),
     (aux_sym_method_decl_token1, 330), (aux_sym_initial_step_token1, 334),
     (aux_sym__stmt_token1, 340), (aux_sym__stmt_token2, 340), (aux_sym__stmt_token3, 340),
     (aux_sym_if_stmt_token1, 342), (aux_sym_case_stmt_token1, 344), (aux_sym_for_stmt_token1, 346),
     (aux_sym_while_stmt_token1, 348), (aux_sym_repeat_stmt_token1, 350),
     (aux_sym_raise_stmt_token1, 352), (aux_sym_try_stmt_token1, 354),
     (aux_sym_try_stmt_token2, 356), (aux_sym_catch_clause_token1, 356),
     (aux_sym_finally_clause_token1, 356), (sym_ld_rung, 358), (sym_fbd_network, 360),
     (sym_c_style_comment, 3), (sym_pascal_style_comment, 3), (sym_pragma, 3)]"

lemma ts_parse_row_1266_scan: "row_scan tokens_63_2 0 ts_parse_row_1266 = Some (Suc (Suc (Suc (Suc 0))))"
  unfolding ts_parse_row_1266_def by simp

text \<open>Lines 192833 to 192917.\<close>

definition ts_parse_row_1267 :: parse_row where
  "ts_parse_row_1267 =
    [(sym_ERR_assign_func_call, 7530), (sym_ERR_unexpected_this_in_path, 2372),
     (sym_ERR_unexpected_super_in_path, 2372), (sym_ERR_method_decl_in_body, 3150),
     (sym_extern_pragma, 7490), (sym_wasm_pragma, 3150), (sym_warn_pragma, 7490),
     (sym_allow_pragma, 3140), (sym_test_pragma, 7490), (sym_once_pragma, 7490),
     (sym_must_call_pragma, 7490), (sym_export_pragma, 7490), (sym_pou_pragma, 7194),
     (sym_direct_variable, 7675), (sym_deref_expression, 2373), (sym_variable, 7599),
     (sym_var_access, 2373), (sym_fb_body, 9267), (sym_method_decl, 3159), (sym_SFC, 7970),
     (sym_SFC_network, 7612), (sym_initial_step, 7439), (sym_variable_access, 7530),
     (sym_func_call, 2961), (sym_stmt_list, 7970), (sym__stmt, 2024), (sym_assign, 3150),
     (sym_if_stmt, 3150), (sym_case_stmt, 3150), (sym_for_stmt, 3150), (sym_while_stmt, 3150),
     (sym_repeat_stmt, 3150), (sym_raise_stmt, 3150), (sym_try_stmt, 3150),
     (sym_ERR_clause_outside_try, 3150), (sym_begin_path_expression, 2943), (sym_invocation, 2934),
     (sym_any_invocation, 2935), (sym_this_invocation, 2641), (sym_super_invocation, 2641),
     (sym_super_body_invocation, 2935), (sym_path_expression, 2627), (sym_field_expression, 2373),
     (sym_index_expression, 2373), (sym_ladder_diagram, 7970), (sym_fb_diagram, 7970),
     (aux_sym_func_decl_repeat1, 7194), (aux_sym_SFC_repeat1, 7612),
     (aux_sym_stmt_list_repeat1, 2024), (aux_sym_ladder_diagram_repeat1, 8009),
     (aux_sym_fb_diagram_repeat1, 8013), (sym_identifier, 298),
     (aux_sym_ERR_unexpected_this_in_path_token1, 304),
     (aux_sym_ERR_unexpected_super_in_path_token1, 306), (sym_line_comment, 3),
     (anon_sym_LBRACE, 308), (aux_sym_test_pragma_token1, 9), (aux_sym_once_pragma_token1, 11),
     (aux_sym_must_call_pragma_token1, 13), (aux_sym_export_pragma_token1, 15),
     (anon_sym_SEMI, 310), (anon_sym_PERCENT, 312), (aux_sym_fb_decl_token4, 3236),
     (aux_sym_method_decl_token1, 330), (aux_sym_initial_step_token1, 334),
     (aux_sym__stmt_token1, 340), (aux_sym__stmt_token2, 340), (aux_sym__stmt_token3, 340),
     (aux_sym_if_stmt_token1, 342), (aux_sym_case_stmt_token1, 344), (aux_sym_for_stmt_token1, 346),
     (aux_sym_while_stmt_token1, 348), (aux_sym_repeat_stmt_token1, 350),
     (aux_sym_raise_stmt_token1, 352), (aux_sym_try_stmt_token1, 354),
     (aux_sym_try_stmt_token2, 356), (aux_sym_catch_clause_token1, 356),
     (aux_sym_finally_clause_token1, 356), (sym_ld_rung, 358), (sym_fbd_network, 360),
     (sym_c_style_comment, 3), (sym_pascal_style_comment, 3), (sym_pragma, 3)]"

lemma ts_parse_row_1267_scan: "row_scan tokens_63_2 0 ts_parse_row_1267 = Some (Suc (Suc (Suc (Suc 0))))"
  unfolding ts_parse_row_1267_def by simp

text \<open>Lines 192918 to 193002.\<close>

definition ts_parse_row_1268 :: parse_row where
  "ts_parse_row_1268 =
    [(sym_ERR_assign_func_call, 7530), (sym_ERR_unexpected_this_in_path, 2372),
     (sym_ERR_unexpected_super_in_path, 2372), (sym_ERR_method_decl_in_body, 3150),
     (sym_extern_pragma, 7490), (sym_wasm_pragma, 3150), (sym_warn_pragma, 7490),
     (sym_allow_pragma, 3140), (sym_test_pragma, 7490), (sym_once_pragma, 7490),
     (sym_must_call_pragma, 7490), (sym_export_pragma, 7490), (sym_pou_pragma, 7194),
     (sym_direct_variable, 7675), (sym_deref_expression, 2373), (sym_variable, 7599),
     (sym_var_access, 2373), (sym_fb_body, 10040), (sym_method_decl, 3159), (sym_SFC, 7970),
     (sym_SFC_network, 7612), (sym_initial_step, 7439), (sym_variable_access, 7530),
     (sym_func_call, 2961), (sym_stmt_list, 7970), (sym__stmt, 2024), (sym_assign, 3150),
     (sym_if_stmt, 3150), (sym_case_stmt, 3150), (sym_for_stmt, 3150), (sym_while_stmt, 3150),
     (sym_repeat_stmt, 3150), (sym_raise_stmt, 3150), (sym_try_stmt, 3150),
     (sym_ERR_clause_outside_try, 3150), (sym_begin_path_expression, 2943), (sym_invocation, 2934),
     (sym_any_invocation, 2935), (sym_this_invocation, 2641), (sym_super_invocation, 2641),
     (sym_super_body_invocation, 2935), (sym_path_expression, 2627), (sym_field_expression, 2373),
     (sym_index_expression, 2373), (sym_ladder_diagram, 7970), (sym_fb_diagram, 7970),
     (aux_sym_func_decl_repeat1, 7194), (aux_sym_SFC_repeat1, 7612),
     (aux_sym_stmt_list_repeat1, 2024), (aux_sym_ladder_diagram_repeat1, 8009),
     (aux_sym_fb_diagram_repeat1, 8013), (sym_identifier, 298),
     (aux_sym_ERR_unexpected_this_in_path_token1, 304),
     (aux_sym_ERR_unexpected_super_in_path_token1, 306), (sym_line_comment, 3),
     (anon_sym_LBRACE, 308), (aux_sym_test_pragma_token1, 9), (aux_sym_once_pragma_token1, 11),
     (aux_sym_must_call_pragma_token1, 13), (aux_sym_export_pragma_token1, 15),
     (anon_sym_SEMI, 310), (anon_sym_PERCENT, 312), (aux_sym_fb_decl_token4, 3238),
     (aux_sym_method_decl_token1, 330), (aux_sym_initial_step_token1, 334),
     (aux_sym__stmt_token1, 340), (aux_sym__stmt_token2, 340), (aux_sym__stmt_token3, 340),
     (aux_sym_if_stmt_token1, 342), (aux_sym_case_stmt_token1, 344), (aux_sym_for_stmt_token1, 346),
     (aux_sym_while_stmt_token1, 348), (aux_sym_repeat_stmt_token1, 350),
     (aux_sym_raise_stmt_token1, 352), (aux_sym_try_stmt_token1, 354),
     (aux_sym_try_stmt_token2, 356), (aux_sym_catch_clause_token1, 356),
     (aux_sym_finally_clause_token1, 356), (sym_ld_rung, 358), (sym_fbd_network, 360),
     (sym_c_style_comment, 3), (sym_pascal_style_comment, 3), (sym_pragma, 3)]"

lemma ts_parse_row_1268_scan: "row_scan tokens_63_2 0 ts_parse_row_1268 = Some (Suc (Suc (Suc (Suc 0))))"
  unfolding ts_parse_row_1268_def by simp

text \<open>Lines 193003 to 193087.\<close>

definition ts_parse_row_1269 :: parse_row where
  "ts_parse_row_1269 =
    [(sym_ERR_assign_func_call, 7530), (sym_ERR_unexpected_this_in_path, 2372),
     (sym_ERR_unexpected_super_in_path, 2372), (sym_ERR_method_decl_in_body, 3150),
     (sym_extern_pragma, 7490), (sym_wasm_pragma, 3150), (sym_warn_pragma, 7490),
     (sym_allow_pragma, 3140), (sym_test_pragma, 7490), (sym_once_pragma, 7490),
     (sym_must_call_pragma, 7490), (sym_export_pragma, 7490), (sym_pou_pragma, 7194),
     (sym_direct_variable, 7675), (sym_deref_expression, 2373), (sym_variable, 7599),
     (sym_var_access, 2373), (sym_fb_body, 10054), (sym_method_decl, 3159), (sym_SFC, 7970),
     (sym_SFC_network, 7612), (sym_initial_step, 7439), (sym_variable_access, 7530),
     (sym_func_call, 2961), (sym_stmt_list, 7970), (sym__stmt, 2024), (sym_assign, 3150),
     (sym_if_stmt, 3150), (sym_case_stmt, 3150), (sym_for_stmt, 3150), (sym_while_stmt, 3150),
     (sym_repeat_stmt, 3150), (sym_raise_stmt, 3150), (sym_try_stmt, 3150),
     (sym_ERR_clause_outside_try, 3150), (sym_begin_path_expression, 2943), (sym_invocation, 2934),
     (sym_any_invocation, 2935), (sym_this_invocation, 2641), (sym_super_invocation, 2641),
     (sym_super_body_invocation, 2935), (sym_path_expression, 2627), (sym_field_expression, 2373),
     (sym_index_expression, 2373), (sym_ladder_diagram, 7970), (sym_fb_diagram, 7970),
     (aux_sym_func_decl_repeat1, 7194), (aux_sym_SFC_repeat1, 7612),
     (aux_sym_stmt_list_repeat1, 2024), (aux_sym_ladder_diagram_repeat1, 8009),
     (aux_sym_fb_diagram_repeat1, 8013), (sym_identifier, 298),
     (aux_sym_ERR_unexpected_this_in_path_token1, 304),
     (aux_sym_ERR_unexpected_super_in_path_token1, 306), (sym_line_comment, 3),
     (anon_sym_LBRACE, 308), (aux_sym_test_pragma_token1, 9), (aux_sym_once_pragma_token1, 11),
     (aux_sym_must_call_pragma_token1, 13), (aux_sym_export_pragma_token1, 15),
     (anon_sym_SEMI, 310), (anon_sym_PERCENT, 312), (aux_sym_fb_decl_token4, 3240),
     (aux_sym_method_decl_token1, 330), (aux_sym_initial_step_token1, 334),
     (aux_sym__stmt_token1, 340), (aux_sym__stmt_token2, 340), (aux_sym__stmt_token3, 340),
     (aux_sym_if_stmt_token1, 342), (aux_sym_case_stmt_token1, 344), (aux_sym_for_stmt_token1, 346),
     (aux_sym_while_stmt_token1, 348), (aux_sym_repeat_stmt_token1, 350),
     (aux_sym_raise_stmt_token1, 352), (aux_sym_try_stmt_token1, 354),
     (aux_sym_try_stmt_token2, 356), (aux_sym_catch_clause_token1, 356),
     (aux_sym_finally_clause_token1, 356), (sym_ld_rung, 358), (sym_fbd_network, 360),
     (sym_c_style_comment, 3), (sym_pascal_style_comment, 3), (sym_pragma, 3)]"

lemma ts_parse_row_1269_scan: "row_scan tokens_63_2 0 ts_parse_row_1269 = Some (Suc (Suc (Suc (Suc 0))))"
  unfolding ts_parse_row_1269_def by simp

text \<open>Lines 193088 to 193172.\<close>

definition ts_parse_row_1270 :: parse_row where
  "ts_parse_row_1270 =
    [(sym_ERR_assign_func_call, 7530), (sym_ERR_unexpected_this_in_path, 2372),
     (sym_ERR_unexpected_super_in_path, 2372), (sym_ERR_method_decl_in_body, 3150),
     (sym_extern_pragma, 7490), (sym_wasm_pragma, 3150), (sym_warn_pragma, 7490),
     (sym_allow_pragma, 3140), (sym_test_pragma, 7490), (sym_once_pragma, 7490),
     (sym_must_call_pragma, 7490), (sym_export_pragma, 7490), (sym_pou_pragma, 7194),
     (sym_direct_variable, 7675), (sym_deref_expression, 2373), (sym_variable, 7599),
     (sym_var_access, 2373), (sym_fb_body, 10068), (sym_method_decl, 3159), (sym_SFC, 7970),
     (sym_SFC_network, 7612), (sym_initial_step, 7439), (sym_variable_access, 7530),
     (sym_func_call, 2961), (sym_stmt_list, 7970), (sym__stmt, 2024), (sym_assign, 3150),
     (sym_if_stmt, 3150), (sym_case_stmt, 3150), (sym_for_stmt, 3150), (sym_while_stmt, 3150),
     (sym_repeat_stmt, 3150), (sym_raise_stmt, 3150), (sym_try_stmt, 3150),
     (sym_ERR_clause_outside_try, 3150), (sym_begin_path_expression, 2943), (sym_invocation, 2934),
     (sym_any_invocation, 2935), (sym_this_invocation, 2641), (sym_super_invocation, 2641),
     (sym_super_body_invocation, 2935), (sym_path_expression, 2627), (sym_field_expression, 2373),
     (sym_index_expression, 2373), (sym_ladder_diagram, 7970), (sym_fb_diagram, 7970),
     (aux_sym_func_decl_repeat1, 7194), (aux_sym_SFC_repeat1, 7612),
     (aux_sym_stmt_list_repeat1, 2024), (aux_sym_ladder_diagram_repeat1, 8009),
     (aux_sym_fb_diagram_repeat1, 8013), (sym_identifier, 298),
     (aux_sym_ERR_unexpected_this_in_path_token1, 304),
     (aux_sym_ERR_unexpected_super_in_path_token1, 306), (sym_line_comment, 3),
     (anon_sym_LBRACE, 308), (aux_sym_test_pragma_token1, 9), (aux_sym_once_pragma_token1, 11),
     (aux_sym_must_call_pragma_token1, 13), (aux_sym_export_pragma_token1, 15),
     (anon_sym_SEMI, 310), (anon_sym_PERCENT, 312), (aux_sym_fb_decl_token4, 578),
     (aux_sym_method_decl_token1, 330), (aux_sym_initial_step_token1, 334),
     (aux_sym__stmt_token1, 340), (aux_sym__stmt_token2, 340), (aux_sym__stmt_token3, 340),
     (aux_sym_if_stmt_token1, 342), (aux_sym_case_stmt_token1, 344), (aux_sym_for_stmt_token1, 346),
     (aux_sym_while_stmt_token1, 348), (aux_sym_repeat_stmt_token1, 350),
     (aux_sym_raise_stmt_token1, 352), (aux_sym_try_stmt_token1, 354),
     (aux_sym_try_stmt_token2, 356), (aux_sym_catch_clause_token1, 356),
     (aux_sym_finally_clause_token1, 356), (sym_ld_rung, 358), (sym_fbd_network, 360),
     (sym_c_style_comment, 3), (sym_pascal_style_comment, 3), (sym_pragma, 3)]"

lemma ts_parse_row_1270_scan: "row_scan tokens_63_2 0 ts_parse_row_1270 = Some (Suc (Suc (Suc (Suc 0))))"
  unfolding ts_parse_row_1270_def by simp

text \<open>Lines 193173 to 193257.\<close>

definition ts_parse_row_1271 :: parse_row where
  "ts_parse_row_1271 =
    [(sym_ERR_assign_func_call, 7530), (sym_ERR_unexpected_this_in_path, 2372),
     (sym_ERR_unexpected_super_in_path, 2372), (sym_ERR_method_decl_in_body, 3150),
     (sym_extern_pragma, 7490), (sym_wasm_pragma, 3150), (sym_warn_pragma, 7490),
     (sym_allow_pragma, 3140), (sym_test_pragma, 7490), (sym_once_pragma, 7490),
     (sym_must_call_pragma, 7490), (sym_export_pragma, 7490), (sym_pou_pragma, 7194),
     (sym_direct_variable, 7675), (sym_deref_expression, 2373), (sym_variable, 7599),
     (sym_var_access, 2373), (sym_fb_body, 9281), (sym_method_decl, 3159), (sym_SFC, 7970),
     (sym_SFC_network, 7612), (sym_initial_step, 7439), (sym_variable_access, 7530),
     (sym_func_call, 2961), (sym_stmt_list, 7970), (sym__stmt, 2024), (sym_assign, 3150),
     (sym_if_stmt, 3150), (sym_case_stmt, 3150), (sym_for_stmt, 3150), (sym_while_stmt, 3150),
     (sym_repeat_stmt, 3150), (sym_raise_stmt, 3150), (sym_try_stmt, 3150),
     (sym_ERR_clause_outside_try, 3150), (sym_begin_path_expression, 2943), (sym_invocation, 2934),
     (sym_any_invocation, 2935), (sym_this_invocation, 2641), (sym_super_invocation, 2641),
     (sym_super_body_invocation, 2935), (sym_path_expression, 2627), (sym_field_expression, 2373),
     (sym_index_expression, 2373), (sym_ladder_diagram, 7970), (sym_fb_diagram, 7970),
     (aux_sym_func_decl_repeat1, 7194), (aux_sym_SFC_repeat1, 7612),
     (aux_sym_stmt_list_repeat1, 2024), (aux_sym_ladder_diagram_repeat1, 8009),
     (aux_sym_fb_diagram_repeat1, 8013), (sym_identifier, 298),
     (aux_sym_ERR_unexpected_this_in_path_token1, 304),
     (aux_sym_ERR_unexpected_super_in_path_token1, 306), (sym_line_comment, 3),
     (anon_sym_LBRACE, 308), (aux_sym_test_pragma_token1, 9), (aux_sym_once_pragma_token1, 11),
     (aux_sym_must_call_pragma_token1, 13), (aux_sym_export_pragma_token1, 15),
     (anon_sym_SEMI, 310), (anon_sym_PERCENT, 312), (aux_sym_fb_decl_token4, 3242),
     (aux_sym_method_decl_token1, 330), (aux_sym_initial_step_token1, 334),
     (aux_sym__stmt_token1, 340), (aux_sym__stmt_token2, 340), (aux_sym__stmt_token3, 340),
     (aux_sym_if_stmt_token1, 342), (aux_sym_case_stmt_token1, 344), (aux_sym_for_stmt_token1, 346),
     (aux_sym_while_stmt_token1, 348), (aux_sym_repeat_stmt_token1, 350),
     (aux_sym_raise_stmt_token1, 352), (aux_sym_try_stmt_token1, 354),
     (aux_sym_try_stmt_token2, 356), (aux_sym_catch_clause_token1, 356),
     (aux_sym_finally_clause_token1, 356), (sym_ld_rung, 358), (sym_fbd_network, 360),
     (sym_c_style_comment, 3), (sym_pascal_style_comment, 3), (sym_pragma, 3)]"

lemma ts_parse_row_1271_scan: "row_scan tokens_63_2 0 ts_parse_row_1271 = Some (Suc (Suc (Suc (Suc 0))))"
  unfolding ts_parse_row_1271_def by simp

text \<open>Lines 193258 to 193342.\<close>

definition ts_parse_row_1272 :: parse_row where
  "ts_parse_row_1272 =
    [(sym_ERR_assign_func_call, 7530), (sym_ERR_unexpected_this_in_path, 2372),
     (sym_ERR_unexpected_super_in_path, 2372), (sym_ERR_method_decl_in_body, 3150),
     (sym_extern_pragma, 7490), (sym_wasm_pragma, 3150), (sym_warn_pragma, 7490),
     (sym_allow_pragma, 3140), (sym_test_pragma, 7490), (sym_once_pragma, 7490),
     (sym_must_call_pragma, 7490), (sym_export_pragma, 7490), (sym_pou_pragma, 7194),
     (sym_direct_variable, 7675), (sym_deref_expression, 2373), (sym_variable, 7599),
     (sym_var_access, 2373), (sym_fb_body, 9305), (sym_method_decl, 3159), (sym_SFC, 7970),
     (sym_SFC_network, 7612), (sym_initial_step, 7439), (sym_variable_access, 7530),
     (sym_func_call, 2961), (sym_stmt_list, 7970), (sym__stmt, 2024), (sym_assign, 3150),
     (sym_if_stmt, 3150), (sym_case_stmt, 3150), (sym_for_stmt, 3150), (sym_while_stmt, 3150),
     (sym_repeat_stmt, 3150), (sym_raise_stmt, 3150), (sym_try_stmt, 3150),
     (sym_ERR_clause_outside_try, 3150), (sym_begin_path_expression, 2943), (sym_invocation, 2934),
     (sym_any_invocation, 2935), (sym_this_invocation, 2641), (sym_super_invocation, 2641),
     (sym_super_body_invocation, 2935), (sym_path_expression, 2627), (sym_field_expression, 2373),
     (sym_index_expression, 2373), (sym_ladder_diagram, 7970), (sym_fb_diagram, 7970),
     (aux_sym_func_decl_repeat1, 7194), (aux_sym_SFC_repeat1, 7612),
     (aux_sym_stmt_list_repeat1, 2024), (aux_sym_ladder_diagram_repeat1, 8009),
     (aux_sym_fb_diagram_repeat1, 8013), (sym_identifier, 298),
     (aux_sym_ERR_unexpected_this_in_path_token1, 304),
     (aux_sym_ERR_unexpected_super_in_path_token1, 306), (sym_line_comment, 3),
     (anon_sym_LBRACE, 308), (aux_sym_test_pragma_token1, 9), (aux_sym_once_pragma_token1, 11),
     (aux_sym_must_call_pragma_token1, 13), (aux_sym_export_pragma_token1, 15),
     (anon_sym_SEMI, 310), (anon_sym_PERCENT, 312), (aux_sym_fb_decl_token4, 3244),
     (aux_sym_method_decl_token1, 330), (aux_sym_initial_step_token1, 334),
     (aux_sym__stmt_token1, 340), (aux_sym__stmt_token2, 340), (aux_sym__stmt_token3, 340),
     (aux_sym_if_stmt_token1, 342), (aux_sym_case_stmt_token1, 344), (aux_sym_for_stmt_token1, 346),
     (aux_sym_while_stmt_token1, 348), (aux_sym_repeat_stmt_token1, 350),
     (aux_sym_raise_stmt_token1, 352), (aux_sym_try_stmt_token1, 354),
     (aux_sym_try_stmt_token2, 356), (aux_sym_catch_clause_token1, 356),
     (aux_sym_finally_clause_token1, 356), (sym_ld_rung, 358), (sym_fbd_network, 360),
     (sym_c_style_comment, 3), (sym_pascal_style_comment, 3), (sym_pragma, 3)]"

lemma ts_parse_row_1272_scan: "row_scan tokens_63_2 0 ts_parse_row_1272 = Some (Suc (Suc (Suc (Suc 0))))"
  unfolding ts_parse_row_1272_def by simp

text \<open>Lines 193343 to 193427.\<close>

definition ts_parse_row_1273 :: parse_row where
  "ts_parse_row_1273 =
    [(sym_ERR_assign_func_call, 7530), (sym_ERR_unexpected_this_in_path, 2372),
     (sym_ERR_unexpected_super_in_path, 2372), (sym_ERR_method_decl_in_body, 3150),
     (sym_extern_pragma, 7490), (sym_wasm_pragma, 3150), (sym_warn_pragma, 7490),
     (sym_allow_pragma, 3140), (sym_test_pragma, 7490), (sym_once_pragma, 7490),
     (sym_must_call_pragma, 7490), (sym_export_pragma, 7490), (sym_pou_pragma, 7194),
     (sym_direct_variable, 7675), (sym_deref_expression, 2373), (sym_variable, 7599),
     (sym_var_access, 2373), (sym_fb_body, 10156), (sym_method_decl, 3159), (sym_SFC, 7970),
     (sym_SFC_network, 7612), (sym_initial_step, 7439), (sym_variable_access, 7530),
     (sym_func_call, 2961), (sym_stmt_list, 7970), (sym__stmt, 2024), (sym_assign, 3150),
     (sym_if_stmt, 3150), (sym_case_stmt, 3150), (sym_for_stmt, 3150), (sym_while_stmt, 3150),
     (sym_repeat_stmt, 3150), (sym_raise_stmt, 3150), (sym_try_stmt, 3150),
     (sym_ERR_clause_outside_try, 3150), (sym_begin_path_expression, 2943), (sym_invocation, 2934),
     (sym_any_invocation, 2935), (sym_this_invocation, 2641), (sym_super_invocation, 2641),
     (sym_super_body_invocation, 2935), (sym_path_expression, 2627), (sym_field_expression, 2373),
     (sym_index_expression, 2373), (sym_ladder_diagram, 7970), (sym_fb_diagram, 7970),
     (aux_sym_func_decl_repeat1, 7194), (aux_sym_SFC_repeat1, 7612),
     (aux_sym_stmt_list_repeat1, 2024), (aux_sym_ladder_diagram_repeat1, 8009),
     (aux_sym_fb_diagram_repeat1, 8013), (sym_identifier, 298),
     (aux_sym_ERR_unexpected_this_in_path_token1, 304),
     (aux_sym_ERR_unexpected_super_in_path_token1, 306), (sym_line_comment, 3),
     (anon_sym_LBRACE, 308), (aux_sym_test_pragma_token1, 9), (aux_sym_once_pragma_token1, 11),
     (aux_sym_must_call_pragma_token1, 13), (aux_sym_export_pragma_token1, 15),
     (anon_sym_SEMI, 310), (anon_sym_PERCENT, 312), (aux_sym_fb_decl_token4, 3246),
     (aux_sym_method_decl_token1, 330), (aux_sym_initial_step_token1, 334),
     (aux_sym__stmt_token1, 340), (aux_sym__stmt_token2, 340), (aux_sym__stmt_token3, 340),
     (aux_sym_if_stmt_token1, 342), (aux_sym_case_stmt_token1, 344), (aux_sym_for_stmt_token1, 346),
     (aux_sym_while_stmt_token1, 348), (aux_sym_repeat_stmt_token1, 350),
     (aux_sym_raise_stmt_token1, 352), (aux_sym_try_stmt_token1, 354),
     (aux_sym_try_stmt_token2, 356), (aux_sym_catch_clause_token1, 356),
     (aux_sym_finally_clause_token1, 356), (sym_ld_rung, 358), (sym_fbd_network, 360),
     (sym_c_style_comment, 3), (sym_pascal_style_comment, 3), (sym_pragma, 3)]"

lemma ts_parse_row_1273_scan: "row_scan tokens_63_2 0 ts_parse_row_1273 = Some (Suc (Suc (Suc (Suc 0))))"
  unfolding ts_parse_row_1273_def by simp

text \<open>Lines 193428 to 193512.\<close>

definition ts_parse_row_1274 :: parse_row where
  "ts_parse_row_1274 =
    [(sym_ERR_assign_func_call, 7530), (sym_ERR_unexpected_this_in_path, 2372),
     (sym_ERR_unexpected_super_in_path, 2372), (sym_ERR_method_decl_in_body, 3150),
     (sym_extern_pragma, 7490), (sym_wasm_pragma, 3150), (sym_warn_pragma, 7490),
     (sym_allow_pragma, 3140), (sym_test_pragma, 7490), (sym_once_pragma, 7490),
     (sym_must_call_pragma, 7490), (sym_export_pragma, 7490), (sym_pou_pragma, 7194),
     (sym_direct_variable, 7675), (sym_deref_expression, 2373), (sym_variable, 7599),
     (sym_var_access, 2373), (sym_fb_body, 10228), (sym_method_decl, 3159), (sym_SFC, 7970),
     (sym_SFC_network, 7612), (sym_initial_step, 7439), (sym_variable_access, 7530),
     (sym_func_call, 2961), (sym_stmt_list, 7970), (sym__stmt, 2024), (sym_assign, 3150),
     (sym_if_stmt, 3150), (sym_case_stmt, 3150), (sym_for_stmt, 3150), (sym_while_stmt, 3150),
     (sym_repeat_stmt, 3150), (sym_raise_stmt, 3150), (sym_try_stmt, 3150),
     (sym_ERR_clause_outside_try, 3150), (sym_begin_path_expression, 2943), (sym_invocation, 2934),
     (sym_any_invocation, 2935), (sym_this_invocation, 2641), (sym_super_invocation, 2641),
     (sym_super_body_invocation, 2935), (sym_path_expression, 2627), (sym_field_expression, 2373),
     (sym_index_expression, 2373), (sym_ladder_diagram, 7970), (sym_fb_diagram, 7970),
     (aux_sym_func_decl_repeat1, 7194), (aux_sym_SFC_repeat1, 7612),
     (aux_sym_stmt_list_repeat1, 2024), (aux_sym_ladder_diagram_repeat1, 8009),
     (aux_sym_fb_diagram_repeat1, 8013), (sym_identifier, 298),
     (aux_sym_ERR_unexpected_this_in_path_token1, 304),
     (aux_sym_ERR_unexpected_super_in_path_token1, 306), (sym_line_comment, 3),
     (anon_sym_LBRACE, 308), (aux_sym_test_pragma_token1, 9), (aux_sym_once_pragma_token1, 11),
     (aux_sym_must_call_pragma_token1, 13), (aux_sym_export_pragma_token1, 15),
     (anon_sym_SEMI, 310), (anon_sym_PERCENT, 312), (aux_sym_fb_decl_token4, 3248),
     (aux_sym_method_decl_token1, 330), (aux_sym_initial_step_token1, 334),
     (aux_sym__stmt_token1, 340), (aux_sym__stmt_token2, 340), (aux_sym__stmt_token3, 340),
     (aux_sym_if_stmt_token1, 342), (aux_sym_case_stmt_token1, 344), (aux_sym_for_stmt_token1, 346),
     (aux_sym_while_stmt_token1, 348), (aux_sym_repeat_stmt_token1, 350),
     (aux_sym_raise_stmt_token1, 352), (aux_sym_try_stmt_token1, 354),
     (aux_sym_try_stmt_token2, 356), (aux_sym_catch_clause_token1, 356),
     (aux_sym_finally_clause_token1, 356), (sym_ld_rung, 358), (sym_fbd_network, 360),
     (sym_c_style_comment, 3), (sym_pascal_style_comment, 3), (sym_pragma, 3)]"

lemma ts_parse_row_1274_scan: "row_scan tokens_63_2 0 ts_parse_row_1274 = Some (Suc (Suc (Suc (Suc 0))))"
  unfolding ts_parse_row_1274_def by simp

text \<open>Lines 193513 to 193597.\<close>

definition ts_parse_row_1275 :: parse_row where
  "ts_parse_row_1275 =
    [(sym_ERR_assign_func_call, 7530), (sym_ERR_unexpected_this_in_path, 2372),
     (sym_ERR_unexpected_super_in_path, 2372), (sym_ERR_method_decl_in_body, 3150),
     (sym_extern_pragma, 7490), (sym_wasm_pragma, 3150), (sym_warn_pragma, 7490),
     (sym_allow_pragma, 3140), (sym_test_pragma, 7490), (sym_once_pragma, 7490),
     (sym_must_call_pragma, 7490), (sym_export_pragma, 7490), (sym_pou_pragma, 7194),
     (sym_direct_variable, 7675), (sym_deref_expression, 2373), (sym_variable, 7599),
     (sym_var_access, 2373), (sym_fb_body, 9336), (sym_method_decl, 3159), (sym_SFC, 7970),
     (sym_SFC_network, 7612), (sym_initial_step, 7439), (sym_variable_access, 7530),
     (sym_func_call, 2961), (sym_stmt_list, 7970), (sym__stmt, 2024), (sym_assign, 3150),
     (sym_if_stmt, 3150), (sym_case_stmt, 3150), (sym_for_stmt, 3150), (sym_while_stmt, 3150),
     (sym_repeat_stmt, 3150), (sym_raise_stmt, 3150), (sym_try_stmt, 3150),
     (sym_ERR_clause_outside_try, 3150), (sym_begin_path_expression, 2943), (sym_invocation, 2934),
     (sym_any_invocation, 2935), (sym_this_invocation, 2641), (sym_super_invocation, 2641),
     (sym_super_body_invocation, 2935), (sym_path_expression, 2627), (sym_field_expression, 2373),
     (sym_index_expression, 2373), (sym_ladder_diagram, 7970), (sym_fb_diagram, 7970),
     (aux_sym_func_decl_repeat1, 7194), (aux_sym_SFC_repeat1, 7612),
     (aux_sym_stmt_list_repeat1, 2024), (aux_sym_ladder_diagram_repeat1, 8009),
     (aux_sym_fb_diagram_repeat1, 8013), (sym_identifier, 298),
     (aux_sym_ERR_unexpected_this_in_path_token1, 304),
     (aux_sym_ERR_unexpected_super_in_path_token1, 306), (sym_line_comment, 3),
     (anon_sym_LBRACE, 308), (aux_sym_test_pragma_token1, 9), (aux_sym_once_pragma_token1, 11),
     (aux_sym_must_call_pragma_token1, 13), (aux_sym_export_pragma_token1, 15),
     (anon_sym_SEMI, 310), (anon_sym_PERCENT, 312), (aux_sym_fb_decl_token4, 3250),
     (aux_sym_method_decl_token1, 330), (aux_sym_initial_step_token1, 334),
     (aux_sym__stmt_token1, 340), (aux_sym__stmt_token2, 340), (aux_sym__stmt_token3, 340),
     (aux_sym_if_stmt_token1, 342), (aux_sym_case_stmt_token1, 344), (aux_sym_for_stmt_token1, 346),
     (aux_sym_while_stmt_token1, 348), (aux_sym_repeat_stmt_token1, 350),
     (aux_sym_raise_stmt_token1, 352), (aux_sym_try_stmt_token1, 354),
     (aux_sym_try_stmt_token2, 356), (aux_sym_catch_clause_token1, 356),
     (aux_sym_finally_clause_token1, 356), (sym_ld_rung, 358), (sym_fbd_network, 360),
     (sym_c_style_comment, 3), (sym_pascal_style_comment, 3), (sym_pragma, 3)]"

lemma ts_parse_row_1275_scan: "row_scan tokens_63_2 0 ts_parse_row_1275 = Some (Suc (Suc (Suc (Suc 0))))"
  unfolding ts_parse_row_1275_def by simp

text \<open>Lines 193598 to 193682.\<close>

definition ts_parse_row_1276 :: parse_row where
  "ts_parse_row_1276 =
    [(sym_ERR_assign_func_call, 7530), (sym_ERR_unexpected_this_in_path, 2372),
     (sym_ERR_unexpected_super_in_path, 2372), (sym_ERR_method_decl_in_body, 3150),
     (sym_extern_pragma, 7490), (sym_wasm_pragma, 3150), (sym_warn_pragma, 7490),
     (sym_allow_pragma, 3140), (sym_test_pragma, 7490), (sym_once_pragma, 7490),
     (sym_must_call_pragma, 7490), (sym_export_pragma, 7490), (sym_pou_pragma, 7194),
     (sym_direct_variable, 7675), (sym_deref_expression, 2373), (sym_variable, 7599),
     (sym_var_access, 2373), (sym_fb_body, 10266), (sym_method_decl, 3159), (sym_SFC, 7970),
     (sym_SFC_network, 7612), (sym_initial_step, 7439), (sym_variable_access, 7530),
     (sym_func_call, 2961), (sym_stmt_list, 7970), (sym__stmt, 2024), (sym_assign, 3150),
     (sym_if_stmt, 3150), (sym_case_stmt, 3150), (sym_for_stmt, 3150), (sym_while_stmt, 3150),
     (sym_repeat_stmt, 3150), (sym_raise_stmt, 3150), (sym_try_stmt, 3150),
     (sym_ERR_clause_outside_try, 3150), (sym_begin_path_expression, 2943), (sym_invocation, 2934),
     (sym_any_invocation, 2935), (sym_this_invocation, 2641), (sym_super_invocation, 2641),
     (sym_super_body_invocation, 2935), (sym_path_expression, 2627), (sym_field_expression, 2373),
     (sym_index_expression, 2373), (sym_ladder_diagram, 7970), (sym_fb_diagram, 7970),
     (aux_sym_func_decl_repeat1, 7194), (aux_sym_SFC_repeat1, 7612),
     (aux_sym_stmt_list_repeat1, 2024), (aux_sym_ladder_diagram_repeat1, 8009),
     (aux_sym_fb_diagram_repeat1, 8013), (sym_identifier, 298),
     (aux_sym_ERR_unexpected_this_in_path_token1, 304),
     (aux_sym_ERR_unexpected_super_in_path_token1, 306), (sym_line_comment, 3),
     (anon_sym_LBRACE, 308), (aux_sym_test_pragma_token1, 9), (aux_sym_once_pragma_token1, 11),
     (aux_sym_must_call_pragma_token1, 13), (aux_sym_export_pragma_token1, 15),
     (anon_sym_SEMI, 310), (anon_sym_PERCENT, 312), (aux_sym_fb_decl_token4, 3252),
     (aux_sym_method_decl_token1, 330), (aux_sym_initial_step_token1, 334),
     (aux_sym__stmt_token1, 340), (aux_sym__stmt_token2, 340), (aux_sym__stmt_token3, 340),
     (aux_sym_if_stmt_token1, 342), (aux_sym_case_stmt_token1, 344), (aux_sym_for_stmt_token1, 346),
     (aux_sym_while_stmt_token1, 348), (aux_sym_repeat_stmt_token1, 350),
     (aux_sym_raise_stmt_token1, 352), (aux_sym_try_stmt_token1, 354),
     (aux_sym_try_stmt_token2, 356), (aux_sym_catch_clause_token1, 356),
     (aux_sym_finally_clause_token1, 356), (sym_ld_rung, 358), (sym_fbd_network, 360),
     (sym_c_style_comment, 3), (sym_pascal_style_comment, 3), (sym_pragma, 3)]"

lemma ts_parse_row_1276_scan: "row_scan tokens_63_2 0 ts_parse_row_1276 = Some (Suc (Suc (Suc (Suc 0))))"
  unfolding ts_parse_row_1276_def by simp

text \<open>Lines 193683 to 193767.\<close>

definition ts_parse_row_1277 :: parse_row where
  "ts_parse_row_1277 =
    [(sym_ERR_assign_func_call, 7530), (sym_ERR_unexpected_this_in_path, 2372),
     (sym_ERR_unexpected_super_in_path, 2372), (sym_ERR_method_decl_in_body, 3150),
     (sym_extern_pragma, 7490), (sym_wasm_pragma, 3150), (sym_warn_pragma, 7490),
     (sym_allow_pragma, 3140), (sym_test_pragma, 7490), (sym_once_pragma, 7490),
     (sym_must_call_pragma, 7490), (sym_export_pragma, 7490), (sym_pou_pragma, 7194),
     (sym_direct_variable, 7675), (sym_deref_expression, 2373), (sym_variable, 7599),
     (sym_var_access, 2373), (sym_fb_body, 10272), (sym_method_decl, 3159), (sym_SFC, 7970),
     (sym_SFC_network, 7612), (sym_initial_step, 7439), (sym_variable_access, 7530),
     (sym_func_call, 2961), (sym_stmt_list, 7970), (sym__stmt, 2024), (sym_assign, 3150),
     (sym_if_stmt, 3150), (sym_case_stmt, 3150), (sym_for_stmt, 3150), (sym_while_stmt, 3150),
     (sym_repeat_stmt, 3150), (sym_raise_stmt, 3150), (sym_try_stmt, 3150),
     (sym_ERR_clause_outside_try, 3150), (sym_begin_path_expression, 2943), (sym_invocation, 2934),
     (sym_any_invocation, 2935), (sym_this_invocation, 2641), (sym_super_invocation, 2641),
     (sym_super_body_invocation, 2935), (sym_path_expression, 2627), (sym_field_expression, 2373),
     (sym_index_expression, 2373), (sym_ladder_diagram, 7970), (sym_fb_diagram, 7970),
     (aux_sym_func_decl_repeat1, 7194), (aux_sym_SFC_repeat1, 7612),
     (aux_sym_stmt_list_repeat1, 2024), (aux_sym_ladder_diagram_repeat1, 8009),
     (aux_sym_fb_diagram_repeat1, 8013), (sym_identifier, 298),
     (aux_sym_ERR_unexpected_this_in_path_token1, 304),
     (aux_sym_ERR_unexpected_super_in_path_token1, 306), (sym_line_comment, 3),
     (anon_sym_LBRACE, 308), (aux_sym_test_pragma_token1, 9), (aux_sym_once_pragma_token1, 11),
     (aux_sym_must_call_pragma_token1, 13), (aux_sym_export_pragma_token1, 15),
     (anon_sym_SEMI, 310), (anon_sym_PERCENT, 312), (aux_sym_fb_decl_token4, 3254),
     (aux_sym_method_decl_token1, 330), (aux_sym_initial_step_token1, 334),
     (aux_sym__stmt_token1, 340), (aux_sym__stmt_token2, 340), (aux_sym__stmt_token3, 340),
     (aux_sym_if_stmt_token1, 342), (aux_sym_case_stmt_token1, 344), (aux_sym_for_stmt_token1, 346),
     (aux_sym_while_stmt_token1, 348), (aux_sym_repeat_stmt_token1, 350),
     (aux_sym_raise_stmt_token1, 352), (aux_sym_try_stmt_token1, 354),
     (aux_sym_try_stmt_token2, 356), (aux_sym_catch_clause_token1, 356),
     (aux_sym_finally_clause_token1, 356), (sym_ld_rung, 358), (sym_fbd_network, 360),
     (sym_c_style_comment, 3), (sym_pascal_style_comment, 3), (sym_pragma, 3)]"

lemma ts_parse_row_1277_scan: "row_scan tokens_63_2 0 ts_parse_row_1277 = Some (Suc (Suc (Suc (Suc 0))))"
  unfolding ts_parse_row_1277_def by simp

text \<open>Lines 193768 to 193852.\<close>

definition ts_parse_row_1278 :: parse_row where
  "ts_parse_row_1278 =
    [(sym_ERR_assign_func_call, 7530), (sym_ERR_unexpected_this_in_path, 2372),
     (sym_ERR_unexpected_super_in_path, 2372), (sym_ERR_method_decl_in_body, 3150),
     (sym_extern_pragma, 7490), (sym_wasm_pragma, 3150), (sym_warn_pragma, 7490),
     (sym_allow_pragma, 3140), (sym_test_pragma, 7490), (sym_once_pragma, 7490),
     (sym_must_call_pragma, 7490), (sym_export_pragma, 7490), (sym_pou_pragma, 7194),
     (sym_direct_variable, 7675), (sym_deref_expression, 2373), (sym_variable, 7599),
     (sym_var_access, 2373), (sym_fb_body, 10282), (sym_method_decl, 3159), (sym_SFC, 7970),
     (sym_SFC_network, 7612), (sym_initial_step, 7439), (sym_variable_access, 7530),
     (sym_func_call, 2961), (sym_stmt_list, 7970), (sym__stmt, 2024), (sym_assign, 3150),
     (sym_if_stmt, 3150), (sym_case_stmt, 3150), (sym_for_stmt, 3150), (sym_while_stmt, 3150),
     (sym_repeat_stmt, 3150), (sym_raise_stmt, 3150), (sym_try_stmt, 3150),
     (sym_ERR_clause_outside_try, 3150), (sym_begin_path_expression, 2943), (sym_invocation, 2934),
     (sym_any_invocation, 2935), (sym_this_invocation, 2641), (sym_super_invocation, 2641),
     (sym_super_body_invocation, 2935), (sym_path_expression, 2627), (sym_field_expression, 2373),
     (sym_index_expression, 2373), (sym_ladder_diagram, 7970), (sym_fb_diagram, 7970),
     (aux_sym_func_decl_repeat1, 7194), (aux_sym_SFC_repeat1, 7612),
     (aux_sym_stmt_list_repeat1, 2024), (aux_sym_ladder_diagram_repeat1, 8009),
     (aux_sym_fb_diagram_repeat1, 8013), (sym_identifier, 298),
     (aux_sym_ERR_unexpected_this_in_path_token1, 304),
     (aux_sym_ERR_unexpected_super_in_path_token1, 306), (sym_line_comment, 3),
     (anon_sym_LBRACE, 308), (aux_sym_test_pragma_token1, 9), (aux_sym_once_pragma_token1, 11),
     (aux_sym_must_call_pragma_token1, 13), (aux_sym_export_pragma_token1, 15),
     (anon_sym_SEMI, 310), (anon_sym_PERCENT, 312), (aux_sym_fb_decl_token4, 3256),
     (aux_sym_method_decl_token1, 330), (aux_sym_initial_step_token1, 334),
     (aux_sym__stmt_token1, 340), (aux_sym__stmt_token2, 340), (aux_sym__stmt_token3, 340),
     (aux_sym_if_stmt_token1, 342), (aux_sym_case_stmt_token1, 344), (aux_sym_for_stmt_token1, 346),
     (aux_sym_while_stmt_token1, 348), (aux_sym_repeat_stmt_token1, 350),
     (aux_sym_raise_stmt_token1, 352), (aux_sym_try_stmt_token1, 354),
     (aux_sym_try_stmt_token2, 356), (aux_sym_catch_clause_token1, 356),
     (aux_sym_finally_clause_token1, 356), (sym_ld_rung, 358), (sym_fbd_network, 360),
     (sym_c_style_comment, 3), (sym_pascal_style_comment, 3), (sym_pragma, 3)]"

lemma ts_parse_row_1278_scan: "row_scan tokens_63_2 0 ts_parse_row_1278 = Some (Suc (Suc (Suc (Suc 0))))"
  unfolding ts_parse_row_1278_def by simp

text \<open>Lines 193853 to 193937.\<close>

definition ts_parse_row_1279 :: parse_row where
  "ts_parse_row_1279 =
    [(sym_ERR_assign_func_call, 7530), (sym_ERR_unexpected_this_in_path, 2372),
     (sym_ERR_unexpected_super_in_path, 2372), (sym_ERR_method_decl_in_body, 3150),
     (sym_extern_pragma, 7490), (sym_wasm_pragma, 3150), (sym_warn_pragma, 7490),
     (sym_allow_pragma, 3140), (sym_test_pragma, 7490), (sym_once_pragma, 7490),
     (sym_must_call_pragma, 7490), (sym_export_pragma, 7490), (sym_pou_pragma, 7194),
     (sym_direct_variable, 7675), (sym_deref_expression, 2373), (sym_variable, 7599),
     (sym_var_access, 2373), (sym_fb_body, 9349), (sym_method_decl, 3159), (sym_SFC, 7970),
     (sym_SFC_network, 7612), (sym_initial_step, 7439), (sym_variable_access, 7530),
     (sym_func_call, 2961), (sym_stmt_list, 7970), (sym__stmt, 2024), (sym_assign, 3150),
     (sym_if_stmt, 3150), (sym_case_stmt, 3150), (sym_for_stmt, 3150), (sym_while_stmt, 3150),
     (sym_repeat_stmt, 3150), (sym_raise_stmt, 3150), (sym_try_stmt, 3150),
     (sym_ERR_clause_outside_try, 3150), (sym_begin_path_expression, 2943), (sym_invocation, 2934),
     (sym_any_invocation, 2935), (sym_this_invocation, 2641), (sym_super_invocation, 2641),
     (sym_super_body_invocation, 2935), (sym_path_expression, 2627), (sym_field_expression, 2373),
     (sym_index_expression, 2373), (sym_ladder_diagram, 7970), (sym_fb_diagram, 7970),
     (aux_sym_func_decl_repeat1, 7194), (aux_sym_SFC_repeat1, 7612),
     (aux_sym_stmt_list_repeat1, 2024), (aux_sym_ladder_diagram_repeat1, 8009),
     (aux_sym_fb_diagram_repeat1, 8013), (sym_identifier, 298),
     (aux_sym_ERR_unexpected_this_in_path_token1, 304),
     (aux_sym_ERR_unexpected_super_in_path_token1, 306), (sym_line_comment, 3),
     (anon_sym_LBRACE, 308), (aux_sym_test_pragma_token1, 9), (aux_sym_once_pragma_token1, 11),
     (aux_sym_must_call_pragma_token1, 13), (aux_sym_export_pragma_token1, 15),
     (anon_sym_SEMI, 310), (anon_sym_PERCENT, 312), (aux_sym_fb_decl_token4, 3258),
     (aux_sym_method_decl_token1, 330), (aux_sym_initial_step_token1, 334),
     (aux_sym__stmt_token1, 340), (aux_sym__stmt_token2, 340), (aux_sym__stmt_token3, 340),
     (aux_sym_if_stmt_token1, 342), (aux_sym_case_stmt_token1, 344), (aux_sym_for_stmt_token1, 346),
     (aux_sym_while_stmt_token1, 348), (aux_sym_repeat_stmt_token1, 350),
     (aux_sym_raise_stmt_token1, 352), (aux_sym_try_stmt_token1, 354),
     (aux_sym_try_stmt_token2, 356), (aux_sym_catch_clause_token1, 356),
     (aux_sym_finally_clause_token1, 356), (sym_ld_rung, 358), (sym_fbd_network, 360),
     (sym_c_style_comment, 3), (sym_pascal_style_comment, 3), (sym_pragma, 3)]"

lemma ts_parse_row_1279_scan: "row_scan tokens_63_2 0 ts_parse_row_1279 = Some (Suc (Suc (Suc (Suc 0))))"
  unfolding ts_parse_row_1279_def by simp

text \<open>Lines 193938 to 194022.\<close>

definition ts_parse_row_1280 :: parse_row where
  "ts_parse_row_1280 =
    [(sym_ERR_assign_func_call, 7530), (sym_ERR_unexpected_this_in_path, 2372),
     (sym_ERR_unexpected_super_in_path, 2372), (sym_ERR_method_decl_in_body, 3150),
     (sym_extern_pragma, 7490), (sym_wasm_pragma, 3150), (sym_warn_pragma, 7490),
     (sym_allow_pragma, 3140), (sym_test_pragma, 7490), (sym_once_pragma, 7490),
     (sym_must_call_pragma, 7490), (sym_export_pragma, 7490), (sym_pou_pragma, 7194),
     (sym_direct_variable, 7675), (sym_deref_expression, 2373), (sym_variable, 7599),
     (sym_var_access, 2373), (sym_fb_body, 10303), (sym_method_decl, 3159), (sym_SFC, 7970),
     (sym_SFC_network, 7612), (sym_initial_step, 7439), (sym_variable_access, 7530),
     (sym_func_call, 2961), (sym_stmt_list, 7970), (sym__stmt, 2024), (sym_assign, 3150),
     (sym_if_stmt, 3150), (sym_case_stmt, 3150), (sym_for_stmt, 3150), (sym_while_stmt, 3150),
     (sym_repeat_stmt, 3150), (sym_raise_stmt, 3150), (sym_try_stmt, 3150),
     (sym_ERR_clause_outside_try, 3150), (sym_begin_path_expression, 2943), (sym_invocation, 2934),
     (sym_any_invocation, 2935), (sym_this_invocation, 2641), (sym_super_invocation, 2641),
     (sym_super_body_invocation, 2935), (sym_path_expression, 2627), (sym_field_expression, 2373),
     (sym_index_expression, 2373), (sym_ladder_diagram, 7970), (sym_fb_diagram, 7970),
     (aux_sym_func_decl_repeat1, 7194), (aux_sym_SFC_repeat1, 7612),
     (aux_sym_stmt_list_repeat1, 2024), (aux_sym_ladder_diagram_repeat1, 8009),
     (aux_sym_fb_diagram_repeat1, 8013), (sym_identifier, 298),
     (aux_sym_ERR_unexpected_this_in_path_token1, 304),
     (aux_sym_ERR_unexpected_super_in_path_token1, 306), (sym_line_comment, 3),
     (anon_sym_LBRACE, 308), (aux_sym_test_pragma_token1, 9), (aux_sym_once_pragma_token1, 11),
     (aux_sym_must_call_pragma_token1, 13), (aux_sym_export_pragma_token1, 15),
     (anon_sym_SEMI, 310), (anon_sym_PERCENT, 312), (aux_sym_fb_decl_token4, 3260),
     (aux_sym_method_decl_token1, 330), (aux_sym_initial_step_token1, 334),
     (aux_sym__stmt_token1, 340), (aux_sym__stmt_token2, 340), (aux_sym__stmt_token3, 340),
     (aux_sym_if_stmt_token1, 342), (aux_sym_case_stmt_token1, 344), (aux_sym_for_stmt_token1, 346),
     (aux_sym_while_stmt_token1, 348), (aux_sym_repeat_stmt_token1, 350),
     (aux_sym_raise_stmt_token1, 352), (aux_sym_try_stmt_token1, 354),
     (aux_sym_try_stmt_token2, 356), (aux_sym_catch_clause_token1, 356),
     (aux_sym_finally_clause_token1, 356), (sym_ld_rung, 358), (sym_fbd_network, 360),
     (sym_c_style_comment, 3), (sym_pascal_style_comment, 3), (sym_pragma, 3)]"

lemma ts_parse_row_1280_scan: "row_scan tokens_63_2 0 ts_parse_row_1280 = Some (Suc (Suc (Suc (Suc 0))))"
  unfolding ts_parse_row_1280_def by simp

text \<open>Lines 194023 to 194107.\<close>

definition ts_parse_row_1281 :: parse_row where
  "ts_parse_row_1281 =
    [(sym_ERR_assign_func_call, 7530), (sym_ERR_unexpected_this_in_path, 2372),
     (sym_ERR_unexpected_super_in_path, 2372), (sym_ERR_method_decl_in_body, 3150),
     (sym_extern_pragma, 7490), (sym_wasm_pragma, 3150), (sym_warn_pragma, 7490),
     (sym_allow_pragma, 3140), (sym_test_pragma, 7490), (sym_once_pragma, 7490),
     (sym_must_call_pragma, 7490), (sym_export_pragma, 7490), (sym_pou_pragma, 7194),
     (sym_direct_variable, 7675), (sym_deref_expression, 2373), (sym_variable, 7599),
     (sym_var_access, 2373), (sym_fb_body, 10327), (sym_method_decl, 3159), (sym_SFC, 7970),
     (sym_SFC_network, 7612), (sym_initial_step, 7439), (sym_variable_access, 7530),
     (sym_func_call, 2961), (sym_stmt_list, 7970), (sym__stmt, 2024), (sym_assign, 3150),
     (sym_if_stmt, 3150), (sym_case_stmt, 3150), (sym_for_stmt, 3150), (sym_while_stmt, 3150),
     (sym_repeat_stmt, 3150), (sym_raise_stmt, 3150), (sym_try_stmt, 3150),
     (sym_ERR_clause_outside_try, 3150), (sym_begin_path_expression, 2943), (sym_invocation, 2934),
     (sym_any_invocation, 2935), (sym_this_invocation, 2641), (sym_super_invocation, 2641),
     (sym_super_body_invocation, 2935), (sym_path_expression, 2627), (sym_field_expression, 2373),
     (sym_index_expression, 2373), (sym_ladder_diagram, 7970), (sym_fb_diagram, 7970),
     (aux_sym_func_decl_repeat1, 7194), (aux_sym_SFC_repeat1, 7612),
     (aux_sym_stmt_list_repeat1, 2024), (aux_sym_ladder_diagram_repeat1, 8009),
     (aux_sym_fb_diagram_repeat1, 8013), (sym_identifier, 298),
     (aux_sym_ERR_unexpected_this_in_path_token1, 304),
     (aux_sym_ERR_unexpected_super_in_path_token1, 306), (sym_line_comment, 3),
     (anon_sym_LBRACE, 308), (aux_sym_test_pragma_token1, 9), (aux_sym_once_pragma_token1, 11),
     (aux_sym_must_call_pragma_token1, 13), (aux_sym_export_pragma_token1, 15),
     (anon_sym_SEMI, 310), (anon_sym_PERCENT, 312), (aux_sym_fb_decl_token4, 3262),
     (aux_sym_method_decl_token1, 330), (aux_sym_initial_step_token1, 334),
     (aux_sym__stmt_token1, 340), (aux_sym__stmt_token2, 340), (aux_sym__stmt_token3, 340),
     (aux_sym_if_stmt_token1, 342), (aux_sym_case_stmt_token1, 344), (aux_sym_for_stmt_token1, 346),
     (aux_sym_while_stmt_token1, 348), (aux_sym_repeat_stmt_token1, 350),
     (aux_sym_raise_stmt_token1, 352), (aux_sym_try_stmt_token1, 354),
     (aux_sym_try_stmt_token2, 356), (aux_sym_catch_clause_token1, 356),
     (aux_sym_finally_clause_token1, 356), (sym_ld_rung, 358), (sym_fbd_network, 360),
     (sym_c_style_comment, 3), (sym_pascal_style_comment, 3), (sym_pragma, 3)]"

lemma ts_parse_row_1281_scan: "row_scan tokens_63_2 0 ts_parse_row_1281 = Some (Suc (Suc (Suc (Suc 0))))"
  unfolding ts_parse_row_1281_def by simp

text \<open>Lines 194108 to 194192.\<close>

definition ts_parse_row_1282 :: parse_row where
  "ts_parse_row_1282 =
    [(sym_ERR_assign_func_call, 7530), (sym_ERR_unexpected_this_in_path, 2372),
     (sym_ERR_unexpected_super_in_path, 2372), (sym_ERR_method_decl_in_body, 3150),
     (sym_extern_pragma, 7490), (sym_wasm_pragma, 3150), (sym_warn_pragma, 7490),
     (sym_allow_pragma, 3140), (sym_test_pragma, 7490), (sym_once_pragma, 7490),
     (sym_must_call_pragma, 7490), (sym_export_pragma, 7490), (sym_pou_pragma, 7194),
     (sym_direct_variable, 7675), (sym_deref_expression, 2373), (sym_variable, 7599),
     (sym_var_access, 2373), (sym_fb_body, 10380), (sym_method_decl, 3159), (sym_SFC, 7970),
     (sym_SFC_network, 7612), (sym_initial_step, 7439), (sym_variable_access, 7530),
     (sym_func_call, 2961), (sym_stmt_list, 7970), (sym__stmt, 2024), (sym_assign, 3150),
     (sym_if_stmt, 3150), (sym_case_stmt, 3150), (sym_for_stmt, 3150), (sym_while_stmt, 3150),
     (sym_repeat_stmt, 3150), (sym_raise_stmt, 3150), (sym_try_stmt, 3150),
     (sym_ERR_clause_outside_try, 3150), (sym_begin_path_expression, 2943), (sym_invocation, 2934),
     (sym_any_invocation, 2935), (sym_this_invocation, 2641), (sym_super_invocation, 2641),
     (sym_super_body_invocation, 2935), (sym_path_expression, 2627), (sym_field_expression, 2373),
     (sym_index_expression, 2373), (sym_ladder_diagram, 7970), (sym_fb_diagram, 7970),
     (aux_sym_func_decl_repeat1, 7194), (aux_sym_SFC_repeat1, 7612),
     (aux_sym_stmt_list_repeat1, 2024), (aux_sym_ladder_diagram_repeat1, 8009),
     (aux_sym_fb_diagram_repeat1, 8013), (sym_identifier, 298),
     (aux_sym_ERR_unexpected_this_in_path_token1, 304),
     (aux_sym_ERR_unexpected_super_in_path_token1, 306), (sym_line_comment, 3),
     (anon_sym_LBRACE, 308), (aux_sym_test_pragma_token1, 9), (aux_sym_once_pragma_token1, 11),
     (aux_sym_must_call_pragma_token1, 13), (aux_sym_export_pragma_token1, 15),
     (anon_sym_SEMI, 310), (anon_sym_PERCENT, 312), (aux_sym_fb_decl_token4, 3264),
     (aux_sym_method_decl_token1, 330), (aux_sym_initial_step_token1, 334),
     (aux_sym__stmt_token1, 340), (aux_sym__stmt_token2, 340), (aux_sym__stmt_token3, 340),
     (aux_sym_if_stmt_token1, 342), (aux_sym_case_stmt_token1, 344), (aux_sym_for_stmt_token1, 346),
     (aux_sym_while_stmt_token1, 348), (aux_sym_repeat_stmt_token1, 350),
     (aux_sym_raise_stmt_token1, 352), (aux_sym_try_stmt_token1, 354),
     (aux_sym_try_stmt_token2, 356), (aux_sym_catch_clause_token1, 356),
     (aux_sym_finally_clause_token1, 356), (sym_ld_rung, 358), (sym_fbd_network, 360),
     (sym_c_style_comment, 3), (sym_pascal_style_comment, 3), (sym_pragma, 3)]"

lemma ts_parse_row_1282_scan: "row_scan tokens_63_2 0 ts_parse_row_1282 = Some (Suc (Suc (Suc (Suc 0))))"
  unfolding ts_parse_row_1282_def by simp

text \<open>Lines 194193 to 194277.\<close>

definition ts_parse_row_1283 :: parse_row where
  "ts_parse_row_1283 =
    [(sym_ERR_assign_func_call, 7530), (sym_ERR_unexpected_this_in_path, 2372),
     (sym_ERR_unexpected_super_in_path, 2372), (sym_ERR_method_decl_in_body, 3150),
     (sym_extern_pragma, 7490), (sym_wasm_pragma, 3150), (sym_warn_pragma, 7490),
     (sym_allow_pragma, 3140), (sym_test_pragma, 7490), (sym_once_pragma, 7490),
     (sym_must_call_pragma, 7490), (sym_export_pragma, 7490), (sym_pou_pragma, 7194),
     (sym_direct_variable, 7675), (sym_deref_expression, 2373), (sym_variable, 7599),
     (sym_var_access, 2373), (sym_fb_body, 10441), (sym_method_decl, 3159), (sym_SFC, 7970),
     (sym_SFC_network, 7612), (sym_initial_step, 7439), (sym_variable_access, 7530),
     (sym_func_call, 2961), (sym_stmt_list, 7970), (sym__stmt, 2024), (sym_assign, 3150),
     (sym_if_stmt, 3150), (sym_case_stmt, 3150), (sym_for_stmt, 3150), (sym_while_stmt, 3150),
     (sym_repeat_stmt, 3150), (sym_raise_stmt, 3150), (sym_try_stmt, 3150),
     (sym_ERR_clause_outside_try, 3150), (sym_begin_path_expression, 2943), (sym_invocation, 2934),
     (sym_any_invocation, 2935), (sym_this_invocation, 2641), (sym_super_invocation, 2641),
     (sym_super_body_invocation, 2935), (sym_path_expression, 2627), (sym_field_expression, 2373),
     (sym_index_expression, 2373), (sym_ladder_diagram, 7970), (sym_fb_diagram, 7970),
     (aux_sym_func_decl_repeat1, 7194), (aux_sym_SFC_repeat1, 7612),
     (aux_sym_stmt_list_repeat1, 2024), (aux_sym_ladder_diagram_repeat1, 8009),
     (aux_sym_fb_diagram_repeat1, 8013), (sym_identifier, 298),
     (aux_sym_ERR_unexpected_this_in_path_token1, 304),
     (aux_sym_ERR_unexpected_super_in_path_token1, 306), (sym_line_comment, 3),
     (anon_sym_LBRACE, 308), (aux_sym_test_pragma_token1, 9), (aux_sym_once_pragma_token1, 11),
     (aux_sym_must_call_pragma_token1, 13), (aux_sym_export_pragma_token1, 15),
     (anon_sym_SEMI, 310), (anon_sym_PERCENT, 312), (aux_sym_fb_decl_token4, 3266),
     (aux_sym_method_decl_token1, 330), (aux_sym_initial_step_token1, 334),
     (aux_sym__stmt_token1, 340), (aux_sym__stmt_token2, 340), (aux_sym__stmt_token3, 340),
     (aux_sym_if_stmt_token1, 342), (aux_sym_case_stmt_token1, 344), (aux_sym_for_stmt_token1, 346),
     (aux_sym_while_stmt_token1, 348), (aux_sym_repeat_stmt_token1, 350),
     (aux_sym_raise_stmt_token1, 352), (aux_sym_try_stmt_token1, 354),
     (aux_sym_try_stmt_token2, 356), (aux_sym_catch_clause_token1, 356),
     (aux_sym_finally_clause_token1, 356), (sym_ld_rung, 358), (sym_fbd_network, 360),
     (sym_c_style_comment, 3), (sym_pascal_style_comment, 3), (sym_pragma, 3)]"

lemma ts_parse_row_1283_scan: "row_scan tokens_63_2 0 ts_parse_row_1283 = Some (Suc (Suc (Suc (Suc 0))))"
  unfolding ts_parse_row_1283_def by simp

text \<open>Lines 194278 to 194362.\<close>

definition ts_parse_row_1284 :: parse_row where
  "ts_parse_row_1284 =
    [(sym_ERR_assign_func_call, 7530), (sym_ERR_unexpected_this_in_path, 2372),
     (sym_ERR_unexpected_super_in_path, 2372), (sym_ERR_method_decl_in_body, 3150),
     (sym_extern_pragma, 7490), (sym_wasm_pragma, 3150), (sym_warn_pragma, 7490),
     (sym_allow_pragma, 3140), (sym_test_pragma, 7490), (sym_once_pragma, 7490),
     (sym_must_call_pragma, 7490), (sym_export_pragma, 7490), (sym_pou_pragma, 7194),
     (sym_direct_variable, 7675), (sym_deref_expression, 2373), (sym_variable, 7599),
     (sym_var_access, 2373), (sym_fb_body, 10453), (sym_method_decl, 3159), (sym_SFC, 7970),
     (sym_SFC_network, 7612), (sym_initial_step, 7439), (sym_variable_access, 7530),
     (sym_func_call, 2961), (sym_stmt_list, 7970), (sym__stmt, 2024), (sym_assign, 3150),
     (sym_if_stmt, 3150), (sym_case_stmt, 3150), (sym_for_stmt, 3150), (sym_while_stmt, 3150),
     (sym_repeat_stmt, 3150), (sym_raise_stmt, 3150), (sym_try_stmt, 3150),
     (sym_ERR_clause_outside_try, 3150), (sym_begin_path_expression, 2943), (sym_invocation, 2934),
     (sym_any_invocation, 2935), (sym_this_invocation, 2641), (sym_super_invocation, 2641),
     (sym_super_body_invocation, 2935), (sym_path_expression, 2627), (sym_field_expression, 2373),
     (sym_index_expression, 2373), (sym_ladder_diagram, 7970), (sym_fb_diagram, 7970),
     (aux_sym_func_decl_repeat1, 7194), (aux_sym_SFC_repeat1, 7612),
     (aux_sym_stmt_list_repeat1, 2024), (aux_sym_ladder_diagram_repeat1, 8009),
     (aux_sym_fb_diagram_repeat1, 8013), (sym_identifier, 298),
     (aux_sym_ERR_unexpected_this_in_path_token1, 304),
     (aux_sym_ERR_unexpected_super_in_path_token1, 306), (sym_line_comment, 3),
     (anon_sym_LBRACE, 308), (aux_sym_test_pragma_token1, 9), (aux_sym_once_pragma_token1, 11),
     (aux_sym_must_call_pragma_token1, 13), (aux_sym_export_pragma_token1, 15),
     (anon_sym_SEMI, 310), (anon_sym_PERCENT, 312), (aux_sym_fb_decl_token4, 3268),
     (aux_sym_method_decl_token1, 330), (aux_sym_initial_step_token1, 334),
     (aux_sym__stmt_token1, 340), (aux_sym__stmt_token2, 340), (aux_sym__stmt_token3, 340),
     (aux_sym_if_stmt_token1, 342), (aux_sym_case_stmt_token1, 344), (aux_sym_for_stmt_token1, 346),
     (aux_sym_while_stmt_token1, 348), (aux_sym_repeat_stmt_token1, 350),
     (aux_sym_raise_stmt_token1, 352), (aux_sym_try_stmt_token1, 354),
     (aux_sym_try_stmt_token2, 356), (aux_sym_catch_clause_token1, 356),
     (aux_sym_finally_clause_token1, 356), (sym_ld_rung, 358), (sym_fbd_network, 360),
     (sym_c_style_comment, 3), (sym_pascal_style_comment, 3), (sym_pragma, 3)]"

lemma ts_parse_row_1284_scan: "row_scan tokens_63_2 0 ts_parse_row_1284 = Some (Suc (Suc (Suc (Suc 0))))"
  unfolding ts_parse_row_1284_def by simp

text \<open>Lines 194363 to 194447.\<close>

definition ts_parse_row_1285 :: parse_row where
  "ts_parse_row_1285 =
    [(sym_ERR_assign_func_call, 7530), (sym_ERR_unexpected_this_in_path, 2372),
     (sym_ERR_unexpected_super_in_path, 2372), (sym_ERR_method_decl_in_body, 3150),
     (sym_extern_pragma, 7490), (sym_wasm_pragma, 3150), (sym_warn_pragma, 7490),
     (sym_allow_pragma, 3140), (sym_test_pragma, 7490), (sym_once_pragma, 7490),
     (sym_must_call_pragma, 7490), (sym_export_pragma, 7490), (sym_pou_pragma, 7194),
     (sym_direct_variable, 7675), (sym_deref_expression, 2373), (sym_variable, 7599),
     (sym_var_access, 2373), (sym_fb_body, 9365), (sym_method_decl, 3159), (sym_SFC, 7970),
     (sym_SFC_network, 7612), (sym_initial_step, 7439), (sym_variable_access, 7530),
     (sym_func_call, 2961), (sym_stmt_list, 7970), (sym__stmt, 2024), (sym_assign, 3150),
     (sym_if_stmt, 3150), (sym_case_stmt, 3150), (sym_for_stmt, 3150), (sym_while_stmt, 3150),
     (sym_repeat_stmt, 3150), (sym_raise_stmt, 3150), (sym_try_stmt, 3150),
     (sym_ERR_clause_outside_try, 3150), (sym_begin_path_expression, 2943), (sym_invocation, 2934),
     (sym_any_invocation, 2935), (sym_this_invocation, 2641), (sym_super_invocation, 2641),
     (sym_super_body_invocation, 2935), (sym_path_expression, 2627), (sym_field_expression, 2373),
     (sym_index_expression, 2373), (sym_ladder_diagram, 7970), (sym_fb_diagram, 7970),
     (aux_sym_func_decl_repeat1, 7194), (aux_sym_SFC_repeat1, 7612),
     (aux_sym_stmt_list_repeat1, 2024), (aux_sym_ladder_diagram_repeat1, 8009),
     (aux_sym_fb_diagram_repeat1, 8013), (sym_identifier, 298),
     (aux_sym_ERR_unexpected_this_in_path_token1, 304),
     (aux_sym_ERR_unexpected_super_in_path_token1, 306), (sym_line_comment, 3),
     (anon_sym_LBRACE, 308), (aux_sym_test_pragma_token1, 9), (aux_sym_once_pragma_token1, 11),
     (aux_sym_must_call_pragma_token1, 13), (aux_sym_export_pragma_token1, 15),
     (anon_sym_SEMI, 310), (anon_sym_PERCENT, 312), (aux_sym_fb_decl_token4, 3270),
     (aux_sym_method_decl_token1, 330), (aux_sym_initial_step_token1, 334),
     (aux_sym__stmt_token1, 340), (aux_sym__stmt_token2, 340), (aux_sym__stmt_token3, 340),
     (aux_sym_if_stmt_token1, 342), (aux_sym_case_stmt_token1, 344), (aux_sym_for_stmt_token1, 346),
     (aux_sym_while_stmt_token1, 348), (aux_sym_repeat_stmt_token1, 350),
     (aux_sym_raise_stmt_token1, 352), (aux_sym_try_stmt_token1, 354),
     (aux_sym_try_stmt_token2, 356), (aux_sym_catch_clause_token1, 356),
     (aux_sym_finally_clause_token1, 356), (sym_ld_rung, 358), (sym_fbd_network, 360),
     (sym_c_style_comment, 3), (sym_pascal_style_comment, 3), (sym_pragma, 3)]"

lemma ts_parse_row_1285_scan: "row_scan tokens_63_2 0 ts_parse_row_1285 = Some (Suc (Suc (Suc (Suc 0))))"
  unfolding ts_parse_row_1285_def by simp

text \<open>Lines 194448 to 194532.\<close>

definition ts_parse_row_1286 :: parse_row where
  "ts_parse_row_1286 =
    [(sym_ERR_assign_func_call, 7530), (sym_ERR_unexpected_this_in_path, 2372),
     (sym_ERR_unexpected_super_in_path, 2372), (sym_ERR_method_decl_in_body, 3150),
     (sym_extern_pragma, 7490), (sym_wasm_pragma, 3150), (sym_warn_pragma, 7490),
     (sym_allow_pragma, 3140), (sym_test_pragma, 7490), (sym_once_pragma, 7490),
     (sym_must_call_pragma, 7490), (sym_export_pragma, 7490), (sym_pou_pragma, 7194),
     (sym_direct_variable, 7675), (sym_deref_expression, 2373), (sym_variable, 7599),
     (sym_var_access, 2373), (sym_fb_body, 10471), (sym_method_decl, 3159), (sym_SFC, 7970),
     (sym_SFC_network, 7612), (sym_initial_step, 7439), (sym_variable_access, 7530),
     (sym_func_call, 2961), (sym_stmt_list, 7970), (sym__stmt, 2024), (sym_assign, 3150),
     (sym_if_stmt, 3150), (sym_case_stmt, 3150), (sym_for_stmt, 3150), (sym_while_stmt, 3150),
     (sym_repeat_stmt, 3150), (sym_raise_stmt, 3150), (sym_try_stmt, 3150),
     (sym_ERR_clause_outside_try, 3150), (sym_begin_path_expression, 2943), (sym_invocation, 2934),
     (sym_any_invocation, 2935), (sym_this_invocation, 2641), (sym_super_invocation, 2641),
     (sym_super_body_invocation, 2935), (sym_path_expression, 2627), (sym_field_expression, 2373),
     (sym_index_expression, 2373), (sym_ladder_diagram, 7970), (sym_fb_diagram, 7970),
     (aux_sym_func_decl_repeat1, 7194), (aux_sym_SFC_repeat1, 7612),
     (aux_sym_stmt_list_repeat1, 2024), (aux_sym_ladder_diagram_repeat1, 8009),
     (aux_sym_fb_diagram_repeat1, 8013), (sym_identifier, 298),
     (aux_sym_ERR_unexpected_this_in_path_token1, 304),
     (aux_sym_ERR_unexpected_super_in_path_token1, 306), (sym_line_comment, 3),
     (anon_sym_LBRACE, 308), (aux_sym_test_pragma_token1, 9), (aux_sym_once_pragma_token1, 11),
     (aux_sym_must_call_pragma_token1, 13), (aux_sym_export_pragma_token1, 15),
     (anon_sym_SEMI, 310), (anon_sym_PERCENT, 312), (aux_sym_fb_decl_token4, 3272),
     (aux_sym_method_decl_token1, 330), (aux_sym_initial_step_token1, 334),
     (aux_sym__stmt_token1, 340), (aux_sym__stmt_token2, 340), (aux_sym__stmt_token3, 340),
     (aux_sym_if_stmt_token1, 342), (aux_sym_case_stmt_token1, 344), (aux_sym_for_stmt_token1, 346),
     (aux_sym_while_stmt_token1, 348), (aux_sym_repeat_stmt_token1, 350),
     (aux_sym_raise_stmt_token1, 352), (aux_sym_try_stmt_token1, 354),
     (aux_sym_try_stmt_token2, 356), (aux_sym_catch_clause_token1, 356),
     (aux_sym_finally_clause_token1, 356), (sym_ld_rung, 358), (sym_fbd_network, 360),
     (sym_c_style_comment, 3), (sym_pascal_style_comment, 3), (sym_pragma, 3)]"

lemma ts_parse_row_1286_scan: "row_scan tokens_63_2 0 ts_parse_row_1286 = Some (Suc (Suc (Suc (Suc 0))))"
  unfolding ts_parse_row_1286_def by simp

text \<open>Lines 194533 to 194617.\<close>

definition ts_parse_row_1287 :: parse_row where
  "ts_parse_row_1287 =
    [(sym_ERR_assign_func_call, 7530), (sym_ERR_unexpected_this_in_path, 2372),
     (sym_ERR_unexpected_super_in_path, 2372), (sym_ERR_method_decl_in_body, 3150),
     (sym_extern_pragma, 7490), (sym_wasm_pragma, 3150), (sym_warn_pragma, 7490),
     (sym_allow_pragma, 3140), (sym_test_pragma, 7490), (sym_once_pragma, 7490),
     (sym_must_call_pragma, 7490), (sym_export_pragma, 7490), (sym_pou_pragma, 7194),
     (sym_direct_variable, 7675), (sym_deref_expression, 2373), (sym_variable, 7599),
     (sym_var_access, 2373), (sym_fb_body, 10513), (sym_method_decl, 3159), (sym_SFC, 7970),
     (sym_SFC_network, 7612), (sym_initial_step, 7439), (sym_variable_access, 7530),
     (sym_func_call, 2961), (sym_stmt_list, 7970), (sym__stmt, 2024), (sym_assign, 3150),
     (sym_if_stmt, 3150), (sym_case_stmt, 3150), (sym_for_stmt, 3150), (sym_while_stmt, 3150),
     (sym_repeat_stmt, 3150), (sym_raise_stmt, 3150), (sym_try_stmt, 3150),
     (sym_ERR_clause_outside_try, 3150), (sym_begin_path_expression, 2943), (sym_invocation, 2934),
     (sym_any_invocation, 2935), (sym_this_invocation, 2641), (sym_super_invocation, 2641),
     (sym_super_body_invocation, 2935), (sym_path_expression, 2627), (sym_field_expression, 2373),
     (sym_index_expression, 2373), (sym_ladder_diagram, 7970), (sym_fb_diagram, 7970),
     (aux_sym_func_decl_repeat1, 7194), (aux_sym_SFC_repeat1, 7612),
     (aux_sym_stmt_list_repeat1, 2024), (aux_sym_ladder_diagram_repeat1, 8009),
     (aux_sym_fb_diagram_repeat1, 8013), (sym_identifier, 298),
     (aux_sym_ERR_unexpected_this_in_path_token1, 304),
     (aux_sym_ERR_unexpected_super_in_path_token1, 306), (sym_line_comment, 3),
     (anon_sym_LBRACE, 308), (aux_sym_test_pragma_token1, 9), (aux_sym_once_pragma_token1, 11),
     (aux_sym_must_call_pragma_token1, 13), (aux_sym_export_pragma_token1, 15),
     (anon_sym_SEMI, 310), (anon_sym_PERCENT, 312), (aux_sym_fb_decl_token4, 3274),
     (aux_sym_method_decl_token1, 330), (aux_sym_initial_step_token1, 334),
     (aux_sym__stmt_token1, 340), (aux_sym__stmt_token2, 340), (aux_sym__stmt_token3, 340),
     (aux_sym_if_stmt_token1, 342), (aux_sym_case_stmt_token1, 344), (aux_sym_for_stmt_token1, 346),
     (aux_sym_while_stmt_token1, 348), (aux_sym_repeat_stmt_token1, 350),
     (aux_sym_raise_stmt_token1, 352), (aux_sym_try_stmt_token1, 354),
     (aux_sym_try_stmt_token2, 356), (aux_sym_catch_clause_token1, 356),
     (aux_sym_finally_clause_token1, 356), (sym_ld_rung, 358), (sym_fbd_network, 360),
     (sym_c_style_comment, 3), (sym_pascal_style_comment, 3), (sym_pragma, 3)]"

lemma ts_parse_row_1287_scan: "row_scan tokens_63_2 0 ts_parse_row_1287 = Some (Suc (Suc (Suc (Suc 0))))"
  unfolding ts_parse_row_1287_def by simp

text \<open>Lines 194618 to 194702.\<close>

definition ts_parse_row_1288 :: parse_row where
  "ts_parse_row_1288 =
    [(sym_ERR_assign_func_call, 7530), (sym_ERR_unexpected_this_in_path, 2372),
     (sym_ERR_unexpected_super_in_path, 2372), (sym_ERR_method_decl_in_body, 3150),
     (sym_extern_pragma, 7490), (sym_wasm_pragma, 3150), (sym_warn_pragma, 7490),
     (sym_allow_pragma, 3140), (sym_test_pragma, 7490), (sym_once_pragma, 7490),
     (sym_must_call_pragma, 7490), (sym_export_pragma, 7490), (sym_pou_pragma, 7194),
     (sym_direct_variable, 7675), (sym_deref_expression, 2373), (sym_variable, 7599),
     (sym_var_access, 2373), (sym_fb_body, 8211), (sym_method_decl, 3159), (sym_SFC, 7970),
     (sym_SFC_network, 7612), (sym_initial_step, 7439), (sym_variable_access, 7530),
     (sym_func_call, 2961), (sym_stmt_list, 7970), (sym__stmt, 2024), (sym_assign, 3150),
     (sym_if_stmt, 3150), (sym_case_stmt, 3150), (sym_for_stmt, 3150), (sym_while_stmt, 3150),
     (sym_repeat_stmt, 3150), (sym_raise_stmt, 3150), (sym_try_stmt, 3150),
     (sym_ERR_clause_outside_try, 3150), (sym_begin_path_expression, 2943), (sym_invocation, 2934),
     (sym_any_invocation, 2935), (sym_this_invocation, 2641), (sym_super_invocation, 2641),
     (sym_super_body_invocation, 2935), (sym_path_expression, 2627), (sym_field_expression, 2373),
     (sym_index_expression, 2373), (sym_ladder_diagram, 7970), (sym_fb_diagram, 7970),
     (aux_sym_func_decl_repeat1, 7194), (aux_sym_SFC_repeat1, 7612),
     (aux_sym_stmt_list_repeat1, 2024), (aux_sym_ladder_diagram_repeat1, 8009),
     (aux_sym_fb_diagram_repeat1, 8013), (sym_identifier, 298),
     (aux_sym_ERR_unexpected_this_in_path_token1, 304),
     (aux_sym_ERR_unexpected_super_in_path_token1, 306), (sym_line_comment, 3),
     (anon_sym_LBRACE, 308), (aux_sym_test_pragma_token1, 9), (aux_sym_once_pragma_token1, 11),
     (aux_sym_must_call_pragma_token1, 13), (aux_sym_export_pragma_token1, 15),
     (anon_sym_SEMI, 310), (anon_sym_PERCENT, 312), (aux_sym_fb_decl_token4, 3276),
     (aux_sym_method_decl_token1, 330), (aux_sym_initial_step_token1, 334),
     (aux_sym__stmt_token1, 340), (aux_sym__stmt_token2, 340), (aux_sym__stmt_token3, 340),
     (aux_sym_if_stmt_token1, 342), (aux_sym_case_stmt_token1, 344), (aux_sym_for_stmt_token1, 346),
     (aux_sym_while_stmt_token1, 348), (aux_sym_repeat_stmt_token1, 350),
     (aux_sym_raise_stmt_token1, 352), (aux_sym_try_stmt_token1, 354),
     (aux_sym_try_stmt_token2, 356), (aux_sym_catch_clause_token1, 356),
     (aux_sym_finally_clause_token1, 356), (sym_ld_rung, 358), (sym_fbd_network, 360),
     (sym_c_style_comment, 3), (sym_pascal_style_comment, 3), (sym_pragma, 3)]"

lemma ts_parse_row_1288_scan: "row_scan tokens_63_2 0 ts_parse_row_1288 = Some (Suc (Suc (Suc (Suc 0))))"
  unfolding ts_parse_row_1288_def by simp

text \<open>Lines 194703 to 194787.\<close>

definition ts_parse_row_1289 :: parse_row where
  "ts_parse_row_1289 =
    [(sym_ERR_assign_func_call, 7530), (sym_ERR_unexpected_this_in_path, 2372),
     (sym_ERR_unexpected_super_in_path, 2372), (sym_ERR_method_decl_in_body, 3150),
     (sym_extern_pragma, 7490), (sym_wasm_pragma, 3150), (sym_warn_pragma, 7490),
     (sym_allow_pragma, 3140), (sym_test_pragma, 7490), (sym_once_pragma, 7490),
     (sym_must_call_pragma, 7490), (sym_export_pragma, 7490), (sym_pou_pragma, 7194),
     (sym_direct_variable, 7675), (sym_deref_expression, 2373), (sym_variable, 7599),
     (sym_var_access, 2373), (sym_fb_body, 8595), (sym_method_decl, 3159), (sym_SFC, 7970),
     (sym_SFC_network, 7612), (sym_initial_step, 7439), (sym_variable_access, 7530),
     (sym_func_call, 2961), (sym_stmt_list, 7970), (sym__stmt, 2024), (sym_assign, 3150),
     (sym_if_stmt, 3150), (sym_case_stmt, 3150), (sym_for_stmt, 3150), (sym_while_stmt, 3150),
     (sym_repeat_stmt, 3150), (sym_raise_stmt, 3150), (sym_try_stmt, 3150),
     (sym_ERR_clause_outside_try, 3150), (sym_begin_path_expression, 2943), (sym_invocation, 2934),
     (sym_any_invocation, 2935), (sym_this_invocation, 2641), (sym_super_invocation, 2641),
     (sym_super_body_invocation, 2935), (sym_path_expression, 2627), (sym_field_expression, 2373),
     (sym_index_expression, 2373), (sym_ladder_diagram, 7970), (sym_fb_diagram, 7970),
     (aux_sym_func_decl_repeat1, 7194), (aux_sym_SFC_repeat1, 7612),
     (aux_sym_stmt_list_repeat1, 2024), (aux_sym_ladder_diagram_repeat1, 8009),
     (aux_sym_fb_diagram_repeat1, 8013), (sym_identifier, 298),
     (aux_sym_ERR_unexpected_this_in_path_token1, 304),
     (aux_sym_ERR_unexpected_super_in_path_token1, 306), (sym_line_comment, 3),
     (anon_sym_LBRACE, 308), (aux_sym_test_pragma_token1, 9), (aux_sym_once_pragma_token1, 11),
     (aux_sym_must_call_pragma_token1, 13), (aux_sym_export_pragma_token1, 15),
     (anon_sym_SEMI, 310), (anon_sym_PERCENT, 312), (aux_sym_fb_decl_token4, 3278),
     (aux_sym_method_decl_token1, 330), (aux_sym_initial_step_token1, 334),
     (aux_sym__stmt_token1, 340), (aux_sym__stmt_token2, 340), (aux_sym__stmt_token3, 340),
     (aux_sym_if_stmt_token1, 342), (aux_sym_case_stmt_token1, 344), (aux_sym_for_stmt_token1, 346),
     (aux_sym_while_stmt_token1, 348), (aux_sym_repeat_stmt_token1, 350),
     (aux_sym_raise_stmt_token1, 352), (aux_sym_try_stmt_token1, 354),
     (aux_sym_try_stmt_token2, 356), (aux_sym_catch_clause_token1, 356),
     (aux_sym_finally_clause_token1, 356), (sym_ld_rung, 358), (sym_fbd_network, 360),
     (sym_c_style_comment, 3), (sym_pascal_style_comment, 3), (sym_pragma, 3)]"

lemma ts_parse_row_1289_scan: "row_scan tokens_63_2 0 ts_parse_row_1289 = Some (Suc (Suc (Suc (Suc 0))))"
  unfolding ts_parse_row_1289_def by simp

text \<open>Lines 194788 to 194872.\<close>

definition ts_parse_row_1290 :: parse_row where
  "ts_parse_row_1290 =
    [(sym_ERR_assign_func_call, 7530), (sym_ERR_unexpected_this_in_path, 2372),
     (sym_ERR_unexpected_super_in_path, 2372), (sym_ERR_method_decl_in_body, 3150),
     (sym_extern_pragma, 7490), (sym_wasm_pragma, 3150), (sym_warn_pragma, 7490),
     (sym_allow_pragma, 3140), (sym_test_pragma, 7490), (sym_once_pragma, 7490),
     (sym_must_call_pragma, 7490), (sym_export_pragma, 7490), (sym_pou_pragma, 7194),
     (sym_direct_variable, 7675), (sym_deref_expression, 2373), (sym_variable, 7599),
     (sym_var_access, 2373), (sym_fb_body, 8601), (sym_method_decl, 3159), (sym_SFC, 7970),
     (sym_SFC_network, 7612), (sym_initial_step, 7439), (sym_variable_access, 7530),
     (sym_func_call, 2961), (sym_stmt_list, 7970), (sym__stmt, 2024), (sym_assign, 3150),
     (sym_if_stmt, 3150), (sym_case_stmt, 3150), (sym_for_stmt, 3150), (sym_while_stmt, 3150),
     (sym_repeat_stmt, 3150), (sym_raise_stmt, 3150), (sym_try_stmt, 3150),
     (sym_ERR_clause_outside_try, 3150), (sym_begin_path_expression, 2943), (sym_invocation, 2934),
     (sym_any_invocation, 2935), (sym_this_invocation, 2641), (sym_super_invocation, 2641),
     (sym_super_body_invocation, 2935), (sym_path_expression, 2627), (sym_field_expression, 2373),
     (sym_index_expression, 2373), (sym_ladder_diagram, 7970), (sym_fb_diagram, 7970),
     (aux_sym_func_decl_repeat1, 7194), (aux_sym_SFC_repeat1, 7612),
     (aux_sym_stmt_list_repeat1, 2024), (aux_sym_ladder_diagram_repeat1, 8009),
     (aux_sym_fb_diagram_repeat1, 8013), (sym_identifier, 298),
     (aux_sym_ERR_unexpected_this_in_path_token1, 304),
     (aux_sym_ERR_unexpected_super_in_path_token1, 306), (sym_line_comment, 3),
     (anon_sym_LBRACE, 308), (aux_sym_test_pragma_token1, 9), (aux_sym_once_pragma_token1, 11),
     (aux_sym_must_call_pragma_token1, 13), (aux_sym_export_pragma_token1, 15),
     (anon_sym_SEMI, 310), (anon_sym_PERCENT, 312), (aux_sym_fb_decl_token4, 3280),
     (aux_sym_method_decl_token1, 330), (aux_sym_initial_step_token1, 334),
     (aux_sym__stmt_token1, 340), (aux_sym__stmt_token2, 340), (aux_sym__stmt_token3, 340),
     (aux_sym_if_stmt_token1, 342), (aux_sym_case_stmt_token1, 344), (aux_sym_for_stmt_token1, 346),
     (aux_sym_while_stmt_token1, 348), (aux_sym_repeat_stmt_token1, 350),
     (aux_sym_raise_stmt_token1, 352), (aux_sym_try_stmt_token1, 354),
     (aux_sym_try_stmt_token2, 356), (aux_sym_catch_clause_token1, 356),
     (aux_sym_finally_clause_token1, 356), (sym_ld_rung, 358), (sym_fbd_network, 360),
     (sym_c_style_comment, 3), (sym_pascal_style_comment, 3), (sym_pragma, 3)]"

lemma ts_parse_row_1290_scan: "row_scan tokens_63_2 0 ts_parse_row_1290 = Some (Suc (Suc (Suc (Suc 0))))"
  unfolding ts_parse_row_1290_def by simp

text \<open>Lines 194873 to 194957.\<close>

definition ts_parse_row_1291 :: parse_row where
  "ts_parse_row_1291 =
    [(sym_ERR_assign_func_call, 7530), (sym_ERR_unexpected_this_in_path, 2372),
     (sym_ERR_unexpected_super_in_path, 2372), (sym_ERR_method_decl_in_body, 3150),
     (sym_extern_pragma, 7490), (sym_wasm_pragma, 3150), (sym_warn_pragma, 7490),
     (sym_allow_pragma, 3140), (sym_test_pragma, 7490), (sym_once_pragma, 7490),
     (sym_must_call_pragma, 7490), (sym_export_pragma, 7490), (sym_pou_pragma, 7194),
     (sym_direct_variable, 7675), (sym_deref_expression, 2373), (sym_variable, 7599),
     (sym_var_access, 2373), (sym_fb_body, 9402), (sym_method_decl, 3159), (sym_SFC, 7970),
     (sym_SFC_network, 7612), (sym_initial_step, 7439), (sym_variable_access, 7530),
     (sym_func_call, 2961), (sym_stmt_list, 7970), (sym__stmt, 2024), (sym_assign, 3150),
     (sym_if_stmt, 3150), (sym_case_stmt, 3150), (sym_for_stmt, 3150), (sym_while_stmt, 3150),
     (sym_repeat_stmt, 3150), (sym_raise_stmt, 3150), (sym_try_stmt, 3150),
     (sym_ERR_clause_outside_try, 3150), (sym_begin_path_expression, 2943), (sym_invocation, 2934),
     (sym_any_invocation, 2935), (sym_this_invocation, 2641), (sym_super_invocation, 2641),
     (sym_super_body_invocation, 2935), (sym_path_expression, 2627), (sym_field_expression, 2373),
     (sym_index_expression, 2373), (sym_ladder_diagram, 7970), (sym_fb_diagram, 7970),
     (aux_sym_func_decl_repeat1, 7194), (aux_sym_SFC_repeat1, 7612),
     (aux_sym_stmt_list_repeat1, 2024), (aux_sym_ladder_diagram_repeat1, 8009),
     (aux_sym_fb_diagram_repeat1, 8013), (sym_identifier, 298),
     (aux_sym_ERR_unexpected_this_in_path_token1, 304),
     (aux_sym_ERR_unexpected_super_in_path_token1, 306), (sym_line_comment, 3),
     (anon_sym_LBRACE, 308), (aux_sym_test_pragma_token1, 9), (aux_sym_once_pragma_token1, 11),
     (aux_sym_must_call_pragma_token1, 13), (aux_sym_export_pragma_token1, 15),
     (anon_sym_SEMI, 310), (anon_sym_PERCENT, 312), (aux_sym_fb_decl_token4, 3282),
     (aux_sym_method_decl_token1, 330), (aux_sym_initial_step_token1, 334),
     (aux_sym__stmt_token1, 340), (aux_sym__stmt_token2, 340), (aux_sym__stmt_token3, 340),
     (aux_sym_if_stmt_token1, 342), (aux_sym_case_stmt_token1, 344), (aux_sym_for_stmt_token1, 346),
     (aux_sym_while_stmt_token1, 348), (aux_sym_repeat_stmt_token1, 350),
     (aux_sym_raise_stmt_token1, 352), (aux_sym_try_stmt_token1, 354),
     (aux_sym_try_stmt_token2, 356), (aux_sym_catch_clause_token1, 356),
     (aux_sym_finally_clause_token1, 356), (sym_ld_rung, 358), (sym_fbd_network, 360),
     (sym_c_style_comment, 3), (sym_pascal_style_comment, 3), (sym_pragma, 3)]"

lemma ts_parse_row_1291_scan: "row_scan tokens_63_2 0 ts_parse_row_1291 = Some (Suc (Suc (Suc (Suc 0))))"
  unfolding ts_parse_row_1291_def by simp

text \<open>Lines 194958 to 195042.\<close>

definition ts_parse_row_1292 :: parse_row where
  "ts_parse_row_1292 =
    [(sym_ERR_assign_func_call, 7530), (sym_ERR_unexpected_this_in_path, 2372),
     (sym_ERR_unexpected_super_in_path, 2372), (sym_ERR_method_decl_in_body, 3150),
     (sym_extern_pragma, 7490), (sym_wasm_pragma, 3150), (sym_warn_pragma, 7490),
     (sym_allow_pragma, 3140), (sym_test_pragma, 7490), (sym_once_pragma, 7490),
     (sym_must_call_pragma, 7490), (sym_export_pragma, 7490), (sym_pou_pragma, 7194),
     (sym_direct_variable, 7675), (sym_deref_expression, 2373), (sym_variable, 7599),
     (sym_var_access, 2373), (sym_fb_body, 8609), (sym_method_decl, 3159), (sym_SFC, 7970),
     (sym_SFC_network, 7612), (sym_initial_step, 7439), (sym_variable_access, 7530),
     (sym_func_call, 2961), (sym_stmt_list, 7970), (sym__stmt, 2024), (sym_assign, 3150),
     (sym_if_stmt, 3150), (sym_case_stmt, 3150), (sym_for_stmt, 3150), (sym_while_stmt, 3150),
     (sym_repeat_stmt, 3150), (sym_raise_stmt, 3150), (sym_try_stmt, 3150),
     (sym_ERR_clause_outside_try, 3150), (sym_begin_path_expression, 2943), (sym_invocation, 2934),
     (sym_any_invocation, 2935), (sym_this_invocation, 2641), (sym_super_invocation, 2641),
     (sym_super_body_invocation, 2935), (sym_path_expression, 2627), (sym_field_expression, 2373),
     (sym_index_expression, 2373), (sym_ladder_diagram, 7970), (sym_fb_diagram, 7970),
     (aux_sym_func_decl_repeat1, 7194), (aux_sym_SFC_repeat1, 7612),
     (aux_sym_stmt_list_repeat1, 2024), (aux_sym_ladder_diagram_repeat1, 8009),
     (aux_sym_fb_diagram_repeat1, 8013), (sym_identifier, 298),
     (aux_sym_ERR_unexpected_this_in_path_token1, 304),
     (aux_sym_ERR_unexpected_super_in_path_token1, 306), (sym_line_comment, 3),
     (anon_sym_LBRACE, 308), (aux_sym_test_pragma_token1, 9), (aux_sym_once_pragma_token1, 11),
     (aux_sym_must_call_pragma_token1, 13), (aux_sym_export_pragma_token1, 15),
     (anon_sym_SEMI, 310), (anon_sym_PERCENT, 312), (aux_sym_fb_decl_token4, 3284),
     (aux_sym_method_decl_token1, 330), (aux_sym_initial_step_token1, 334),
     (aux_sym__stmt_token1, 340), (aux_sym__stmt_token2, 340), (aux_sym__stmt_token3, 340),
     (aux_sym_if_stmt_token1, 342), (aux_sym_case_stmt_token1, 344), (aux_sym_for_stmt_token1, 346),
     (aux_sym_while_stmt_token1, 348), (aux_sym_repeat_stmt_token1, 350),
     (aux_sym_raise_stmt_token1, 352), (aux_sym_try_stmt_token1, 354),
     (aux_sym_try_stmt_token2, 356), (aux_sym_catch_clause_token1, 356),
     (aux_sym_finally_clause_token1, 356), (sym_ld_rung, 358), (sym_fbd_network, 360),
     (sym_c_style_comment, 3), (sym_pascal_style_comment, 3), (sym_pragma, 3)]"

lemma ts_parse_row_1292_scan: "row_scan tokens_63_2 0 ts_parse_row_1292 = Some (Suc (Suc (Suc (Suc 0))))"
  unfolding ts_parse_row_1292_def by simp

text \<open>Lines 195043 to 195127.\<close>

definition ts_parse_row_1293 :: parse_row where
  "ts_parse_row_1293 =
    [(sym_ERR_assign_func_call, 7530), (sym_ERR_unexpected_this_in_path, 2372),
     (sym_ERR_unexpected_super_in_path, 2372), (sym_ERR_method_decl_in_body, 3150),
     (sym_extern_pragma, 7490), (sym_wasm_pragma, 3150), (sym_warn_pragma, 7490),
     (sym_allow_pragma, 3140), (sym_test_pragma, 7490), (sym_once_pragma, 7490),
     (sym_must_call_pragma, 7490), (sym_export_pragma, 7490), (sym_pou_pragma, 7194),
     (sym_direct_variable, 7675), (sym_deref_expression, 2373), (sym_variable, 7599),
     (sym_var_access, 2373), (sym_fb_body, 8614), (sym_method_decl, 3159), (sym_SFC, 7970),
     (sym_SFC_network, 7612), (sym_initial_step, 7439), (sym_variable_access, 7530),
     (sym_func_call, 2961), (sym_stmt_list, 7970), (sym__stmt, 2024), (sym_assign, 3150),
     (sym_if_stmt, 3150), (sym_case_stmt, 3150), (sym_for_stmt, 3150), (sym_while_stmt, 3150),
     (sym_repeat_stmt, 3150), (sym_raise_stmt, 3150), (sym_try_stmt, 3150),
     (sym_ERR_clause_outside_try, 3150), (sym_begin_path_expression, 2943), (sym_invocation, 2934),
     (sym_any_invocation, 2935), (sym_this_invocation, 2641), (sym_super_invocation, 2641),
     (sym_super_body_invocation, 2935), (sym_path_expression, 2627), (sym_field_expression, 2373),
     (sym_index_expression, 2373), (sym_ladder_diagram, 7970), (sym_fb_diagram, 7970),
     (aux_sym_func_decl_repeat1, 7194), (aux_sym_SFC_repeat1, 7612),
     (aux_sym_stmt_list_repeat1, 2024), (aux_sym_ladder_diagram_repeat1, 8009),
     (aux_sym_fb_diagram_repeat1, 8013), (sym_identifier, 298),
     (aux_sym_ERR_unexpected_this_in_path_token1, 304),
     (aux_sym_ERR_unexpected_super_in_path_token1, 306), (sym_line_comment, 3),
     (anon_sym_LBRACE, 308), (aux_sym_test_pragma_token1, 9), (aux_sym_once_pragma_token1, 11),
     (aux_sym_must_call_pragma_token1, 13), (aux_sym_export_pragma_token1, 15),
     (anon_sym_SEMI, 310), (anon_sym_PERCENT, 312), (aux_sym_fb_decl_token4, 3286),
     (aux_sym_method_decl_token1, 330), (aux_sym_initial_step_token1, 334),
     (aux_sym__stmt_token1, 340), (aux_sym__stmt_token2, 340), (aux_sym__stmt_token3, 340),
     (aux_sym_if_stmt_token1, 342), (aux_sym_case_stmt_token1, 344), (aux_sym_for_stmt_token1, 346),
     (aux_sym_while_stmt_token1, 348), (aux_sym_repeat_stmt_token1, 350),
     (aux_sym_raise_stmt_token1, 352), (aux_sym_try_stmt_token1, 354),
     (aux_sym_try_stmt_token2, 356), (aux_sym_catch_clause_token1, 356),
     (aux_sym_finally_clause_token1, 356), (sym_ld_rung, 358), (sym_fbd_network, 360),
     (sym_c_style_comment, 3), (sym_pascal_style_comment, 3), (sym_pragma, 3)]"

lemma ts_parse_row_1293_scan: "row_scan tokens_63_2 0 ts_parse_row_1293 = Some (Suc (Suc (Suc (Suc 0))))"
  unfolding ts_parse_row_1293_def by simp

text \<open>Lines 195128 to 195212.\<close>

definition ts_parse_row_1294 :: parse_row where
  "ts_parse_row_1294 =
    [(sym_ERR_assign_func_call, 7530), (sym_ERR_unexpected_this_in_path, 2372),
     (sym_ERR_unexpected_super_in_path, 2372), (sym_ERR_method_decl_in_body, 3150),
     (sym_extern_pragma, 7490), (sym_wasm_pragma, 3150), (sym_warn_pragma, 7490),
     (sym_allow_pragma, 3140), (sym_test_pragma, 7490), (sym_once_pragma, 7490),
     (sym_must_call_pragma, 7490), (sym_export_pragma, 7490), (sym_pou_pragma, 7194),
     (sym_direct_variable, 7675), (sym_deref_expression, 2373), (sym_variable, 7599),
     (sym_var_access, 2373), (sym_fb_body, 9430), (sym_method_decl, 3159), (sym_SFC, 7970),
     (sym_SFC_network, 7612), (sym_initial_step, 7439), (sym_variable_access, 7530),
     (sym_func_call, 2961), (sym_stmt_list, 7970), (sym__stmt, 2024), (sym_assign, 3150),
     (sym_if_stmt, 3150), (sym_case_stmt, 3150), (sym_for_stmt, 3150), (sym_while_stmt, 3150),
     (sym_repeat_stmt, 3150), (sym_raise_stmt, 3150), (sym_try_stmt, 3150),
     (sym_ERR_clause_outside_try, 3150), (sym_begin_path_expression, 2943), (sym_invocation, 2934),
     (sym_any_invocation, 2935), (sym_this_invocation, 2641), (sym_super_invocation, 2641),
     (sym_super_body_invocation, 2935), (sym_path_expression, 2627), (sym_field_expression, 2373),
     (sym_index_expression, 2373), (sym_ladder_diagram, 7970), (sym_fb_diagram, 7970),
     (aux_sym_func_decl_repeat1, 7194), (aux_sym_SFC_repeat1, 7612),
     (aux_sym_stmt_list_repeat1, 2024), (aux_sym_ladder_diagram_repeat1, 8009),
     (aux_sym_fb_diagram_repeat1, 8013), (sym_identifier, 298),
     (aux_sym_ERR_unexpected_this_in_path_token1, 304),
     (aux_sym_ERR_unexpected_super_in_path_token1, 306), (sym_line_comment, 3),
     (anon_sym_LBRACE, 308), (aux_sym_test_pragma_token1, 9), (aux_sym_once_pragma_token1, 11),
     (aux_sym_must_call_pragma_token1, 13), (aux_sym_export_pragma_token1, 15),
     (anon_sym_SEMI, 310), (anon_sym_PERCENT, 312), (aux_sym_fb_decl_token4, 3288),
     (aux_sym_method_decl_token1, 330), (aux_sym_initial_step_token1, 334),
     (aux_sym__stmt_token1, 340), (aux_sym__stmt_token2, 340), (aux_sym__stmt_token3, 340),
     (aux_sym_if_stmt_token1, 342), (aux_sym_case_stmt_token1, 344), (aux_sym_for_stmt_token1, 346),
     (aux_sym_while_stmt_token1, 348), (aux_sym_repeat_stmt_token1, 350),
     (aux_sym_raise_stmt_token1, 352), (aux_sym_try_stmt_token1, 354),
     (aux_sym_try_stmt_token2, 356), (aux_sym_catch_clause_token1, 356),
     (aux_sym_finally_clause_token1, 356), (sym_ld_rung, 358), (sym_fbd_network, 360),
     (sym_c_style_comment, 3), (sym_pascal_style_comment, 3), (sym_pragma, 3)]"

lemma ts_parse_row_1294_scan: "row_scan tokens_63_2 0 ts_parse_row_1294 = Some (Suc (Suc (Suc (Suc 0))))"
  unfolding ts_parse_row_1294_def by simp

text \<open>Lines 195213 to 195297.\<close>

definition ts_parse_row_1295 :: parse_row where
  "ts_parse_row_1295 =
    [(sym_ERR_assign_func_call, 7530), (sym_ERR_unexpected_this_in_path, 2372),
     (sym_ERR_unexpected_super_in_path, 2372), (sym_ERR_method_decl_in_body, 3150),
     (sym_extern_pragma, 7490), (sym_wasm_pragma, 3150), (sym_warn_pragma, 7490),
     (sym_allow_pragma, 3140), (sym_test_pragma, 7490), (sym_once_pragma, 7490),
     (sym_must_call_pragma, 7490), (sym_export_pragma, 7490), (sym_pou_pragma, 7194),
     (sym_direct_variable, 7675), (sym_deref_expression, 2373), (sym_variable, 7599),
     (sym_var_access, 2373), (sym_fb_body, 8621), (sym_method_decl, 3159), (sym_SFC, 7970),
     (sym_SFC_network, 7612), (sym_initial_step, 7439), (sym_variable_access, 7530),
     (sym_func_call, 2961), (sym_stmt_list, 7970), (sym__stmt, 2024), (sym_assign, 3150),
     (sym_if_stmt, 3150), (sym_case_stmt, 3150), (sym_for_stmt, 3150), (sym_while_stmt, 3150),
     (sym_repeat_stmt, 3150), (sym_raise_stmt, 3150), (sym_try_stmt, 3150),
     (sym_ERR_clause_outside_try, 3150), (sym_begin_path_expression, 2943), (sym_invocation, 2934),
     (sym_any_invocation, 2935), (sym_this_invocation, 2641), (sym_super_invocation, 2641),
     (sym_super_body_invocation, 2935), (sym_path_expression, 2627), (sym_field_expression, 2373),
     (sym_index_expression, 2373), (sym_ladder_diagram, 7970), (sym_fb_diagram, 7970),
     (aux_sym_func_decl_repeat1, 7194), (aux_sym_SFC_repeat1, 7612),
     (aux_sym_stmt_list_repeat1, 2024), (aux_sym_ladder_diagram_repeat1, 8009),
     (aux_sym_fb_diagram_repeat1, 8013), (sym_identifier, 298),
     (aux_sym_ERR_unexpected_this_in_path_token1, 304),
     (aux_sym_ERR_unexpected_super_in_path_token1, 306), (sym_line_comment, 3),
     (anon_sym_LBRACE, 308), (aux_sym_test_pragma_token1, 9), (aux_sym_once_pragma_token1, 11),
     (aux_sym_must_call_pragma_token1, 13), (aux_sym_export_pragma_token1, 15),
     (anon_sym_SEMI, 310), (anon_sym_PERCENT, 312), (aux_sym_fb_decl_token4, 3290),
     (aux_sym_method_decl_token1, 330), (aux_sym_initial_step_token1, 334),
     (aux_sym__stmt_token1, 340), (aux_sym__stmt_token2, 340), (aux_sym__stmt_token3, 340),
     (aux_sym_if_stmt_token1, 342), (aux_sym_case_stmt_token1, 344), (aux_sym_for_stmt_token1, 346),
     (aux_sym_while_stmt_token1, 348), (aux_sym_repeat_stmt_token1, 350),
     (aux_sym_raise_stmt_token1, 352), (aux_sym_try_stmt_token1, 354),
     (aux_sym_try_stmt_token2, 356), (aux_sym_catch_clause_token1, 356),
     (aux_sym_finally_clause_token1, 356), (sym_ld_rung, 358), (sym_fbd_network, 360),
     (sym_c_style_comment, 3), (sym_pascal_style_comment, 3), (sym_pragma, 3)]"

lemma ts_parse_row_1295_scan: "row_scan tokens_63_2 0 ts_parse_row_1295 = Some (Suc (Suc (Suc (Suc 0))))"
  unfolding ts_parse_row_1295_def by simp

text \<open>Lines 195298 to 195382.\<close>

definition ts_parse_row_1296 :: parse_row where
  "ts_parse_row_1296 =
    [(sym_ERR_assign_func_call, 7530), (sym_ERR_unexpected_this_in_path, 2372),
     (sym_ERR_unexpected_super_in_path, 2372), (sym_ERR_method_decl_in_body, 3150),
     (sym_extern_pragma, 7490), (sym_wasm_pragma, 3150), (sym_warn_pragma, 7490),
     (sym_allow_pragma, 3140), (sym_test_pragma, 7490), (sym_once_pragma, 7490),
     (sym_must_call_pragma, 7490), (sym_export_pragma, 7490), (sym_pou_pragma, 7194),
     (sym_direct_variable, 7675), (sym_deref_expression, 2373), (sym_variable, 7599),
     (sym_var_access, 2373), (sym_fb_body, 9444), (sym_method_decl, 3159), (sym_SFC, 7970),
     (sym_SFC_network, 7612), (sym_initial_step, 7439), (sym_variable_access, 7530),
     (sym_func_call, 2961), (sym_stmt_list, 7970), (sym__stmt, 2024), (sym_assign, 3150),
     (sym_if_stmt, 3150), (sym_case_stmt, 3150), (sym_for_stmt, 3150), (sym_while_stmt, 3150),
     (sym_repeat_stmt, 3150), (sym_raise_stmt, 3150), (sym_try_stmt, 3150),
     (sym_ERR_clause_outside_try, 3150), (sym_begin_path_expression, 2943), (sym_invocation, 2934),
     (sym_any_invocation, 2935), (sym_this_invocation, 2641), (sym_super_invocation, 2641),
     (sym_super_body_invocation, 2935), (sym_path_expression, 2627), (sym_field_expression, 2373),
     (sym_index_expression, 2373), (sym_ladder_diagram, 7970), (sym_fb_diagram, 7970),
     (aux_sym_func_decl_repeat1, 7194), (aux_sym_SFC_repeat1, 7612),
     (aux_sym_stmt_list_repeat1, 2024), (aux_sym_ladder_diagram_repeat1, 8009),
     (aux_sym_fb_diagram_repeat1, 8013), (sym_identifier, 298),
     (aux_sym_ERR_unexpected_this_in_path_token1, 304),
     (aux_sym_ERR_unexpected_super_in_path_token1, 306), (sym_line_comment, 3),
     (anon_sym_LBRACE, 308), (aux_sym_test_pragma_token1, 9), (aux_sym_once_pragma_token1, 11),
     (aux_sym_must_call_pragma_token1, 13), (aux_sym_export_pragma_token1, 15),
     (anon_sym_SEMI, 310), (anon_sym_PERCENT, 312), (aux_sym_fb_decl_token4, 3292),
     (aux_sym_method_decl_token1, 330), (aux_sym_initial_step_token1, 334),
     (aux_sym__stmt_token1, 340), (aux_sym__stmt_token2, 340), (aux_sym__stmt_token3, 340),
     (aux_sym_if_stmt_token1, 342), (aux_sym_case_stmt_token1, 344), (aux_sym_for_stmt_token1, 346),
     (aux_sym_while_stmt_token1, 348), (aux_sym_repeat_stmt_token1, 350),
     (aux_sym_raise_stmt_token1, 352), (aux_sym_try_stmt_token1, 354),
     (aux_sym_try_stmt_token2, 356), (aux_sym_catch_clause_token1, 356),
     (aux_sym_finally_clause_token1, 356), (sym_ld_rung, 358), (sym_fbd_network, 360),
     (sym_c_style_comment, 3), (sym_pascal_style_comment, 3), (sym_pragma, 3)]"

lemma ts_parse_row_1296_scan: "row_scan tokens_63_2 0 ts_parse_row_1296 = Some (Suc (Suc (Suc (Suc 0))))"
  unfolding ts_parse_row_1296_def by simp

text \<open>Lines 195383 to 195467.\<close>

definition ts_parse_row_1297 :: parse_row where
  "ts_parse_row_1297 =
    [(sym_ERR_assign_func_call, 7530), (sym_ERR_unexpected_this_in_path, 2372),
     (sym_ERR_unexpected_super_in_path, 2372), (sym_ERR_method_decl_in_body, 3150),
     (sym_extern_pragma, 7490), (sym_wasm_pragma, 3150), (sym_warn_pragma, 7490),
     (sym_allow_pragma, 3140), (sym_test_pragma, 7490), (sym_once_pragma, 7490),
     (sym_must_call_pragma, 7490), (sym_export_pragma, 7490), (sym_pou_pragma, 7194),
     (sym_direct_variable, 7675), (sym_deref_expression, 2373), (sym_variable, 7599),
     (sym_var_access, 2373), (sym_fb_body, 8632), (sym_method_decl, 3159), (sym_SFC, 7970),
     (sym_SFC_network, 7612), (sym_initial_step, 7439), (sym_variable_access, 7530),
     (sym_func_call, 2961), (sym_stmt_list, 7970), (sym__stmt, 2024), (sym_assign, 3150),
     (sym_if_stmt, 3150), (sym_case_stmt, 3150), (sym_for_stmt, 3150), (sym_while_stmt, 3150),
     (sym_repeat_stmt, 3150), (sym_raise_stmt, 3150), (sym_try_stmt, 3150),
     (sym_ERR_clause_outside_try, 3150), (sym_begin_path_expression, 2943), (sym_invocation, 2934),
     (sym_any_invocation, 2935), (sym_this_invocation, 2641), (sym_super_invocation, 2641),
     (sym_super_body_invocation, 2935), (sym_path_expression, 2627), (sym_field_expression, 2373),
     (sym_index_expression, 2373), (sym_ladder_diagram, 7970), (sym_fb_diagram, 7970),
     (aux_sym_func_decl_repeat1, 7194), (aux_sym_SFC_repeat1, 7612),
     (aux_sym_stmt_list_repeat1, 2024), (aux_sym_ladder_diagram_repeat1, 8009),
     (aux_sym_fb_diagram_repeat1, 8013), (sym_identifier, 298),
     (aux_sym_ERR_unexpected_this_in_path_token1, 304),
     (aux_sym_ERR_unexpected_super_in_path_token1, 306), (sym_line_comment, 3),
     (anon_sym_LBRACE, 308), (aux_sym_test_pragma_token1, 9), (aux_sym_once_pragma_token1, 11),
     (aux_sym_must_call_pragma_token1, 13), (aux_sym_export_pragma_token1, 15),
     (anon_sym_SEMI, 310), (anon_sym_PERCENT, 312), (aux_sym_fb_decl_token4, 3294),
     (aux_sym_method_decl_token1, 330), (aux_sym_initial_step_token1, 334),
     (aux_sym__stmt_token1, 340), (aux_sym__stmt_token2, 340), (aux_sym__stmt_token3, 340),
     (aux_sym_if_stmt_token1, 342), (aux_sym_case_stmt_token1, 344), (aux_sym_for_stmt_token1, 346),
     (aux_sym_while_stmt_token1, 348), (aux_sym_repeat_stmt_token1, 350),
     (aux_sym_raise_stmt_token1, 352), (aux_sym_try_stmt_token1, 354),
     (aux_sym_try_stmt_token2, 356), (aux_sym_catch_clause_token1, 356),
     (aux_sym_finally_clause_token1, 356), (sym_ld_rung, 358), (sym_fbd_network, 360),
     (sym_c_style_comment, 3), (sym_pascal_style_comment, 3), (sym_pragma, 3)]"

lemma ts_parse_row_1297_scan: "row_scan tokens_63_2 0 ts_parse_row_1297 = Some (Suc (Suc (Suc (Suc 0))))"
  unfolding ts_parse_row_1297_def by simp

text \<open>Lines 195468 to 195552.\<close>

definition ts_parse_row_1298 :: parse_row where
  "ts_parse_row_1298 =
    [(sym_ERR_assign_func_call, 7530), (sym_ERR_unexpected_this_in_path, 2372),
     (sym_ERR_unexpected_super_in_path, 2372), (sym_ERR_method_decl_in_body, 3150),
     (sym_extern_pragma, 7490), (sym_wasm_pragma, 3150), (sym_warn_pragma, 7490),
     (sym_allow_pragma, 3140), (sym_test_pragma, 7490), (sym_once_pragma, 7490),
     (sym_must_call_pragma, 7490), (sym_export_pragma, 7490), (sym_pou_pragma, 7194),
     (sym_direct_variable, 7675), (sym_deref_expression, 2373), (sym_variable, 7599),
     (sym_var_access, 2373), (sym_fb_body, 8637), (sym_method_decl, 3159), (sym_SFC, 7970),
     (sym_SFC_network, 7612), (sym_initial_step, 7439), (sym_variable_access, 7530),
     (sym_func_call, 2961), (sym_stmt_list, 7970), (sym__stmt, 2024), (sym_assign, 3150),
     (sym_if_stmt, 3150), (sym_case_stmt, 3150), (sym_for_stmt, 3150), (sym_while_stmt, 3150),
     (sym_repeat_stmt, 3150), (sym_raise_stmt, 3150), (sym_try_stmt, 3150),
     (sym_ERR_clause_outside_try, 3150), (sym_begin_path_expression, 2943), (sym_invocation, 2934),
     (sym_any_invocation, 2935), (sym_this_invocation, 2641), (sym_super_invocation, 2641),
     (sym_super_body_invocation, 2935), (sym_path_expression, 2627), (sym_field_expression, 2373),
     (sym_index_expression, 2373), (sym_ladder_diagram, 7970), (sym_fb_diagram, 7970),
     (aux_sym_func_decl_repeat1, 7194), (aux_sym_SFC_repeat1, 7612),
     (aux_sym_stmt_list_repeat1, 2024), (aux_sym_ladder_diagram_repeat1, 8009),
     (aux_sym_fb_diagram_repeat1, 8013), (sym_identifier, 298),
     (aux_sym_ERR_unexpected_this_in_path_token1, 304),
     (aux_sym_ERR_unexpected_super_in_path_token1, 306), (sym_line_comment, 3),
     (anon_sym_LBRACE, 308), (aux_sym_test_pragma_token1, 9), (aux_sym_once_pragma_token1, 11),
     (aux_sym_must_call_pragma_token1, 13), (aux_sym_export_pragma_token1, 15),
     (anon_sym_SEMI, 310), (anon_sym_PERCENT, 312), (aux_sym_fb_decl_token4, 580),
     (aux_sym_method_decl_token1, 330), (aux_sym_initial_step_token1, 334),
     (aux_sym__stmt_token1, 340), (aux_sym__stmt_token2, 340), (aux_sym__stmt_token3, 340),
     (aux_sym_if_stmt_token1, 342), (aux_sym_case_stmt_token1, 344), (aux_sym_for_stmt_token1, 346),
     (aux_sym_while_stmt_token1, 348), (aux_sym_repeat_stmt_token1, 350),
     (aux_sym_raise_stmt_token1, 352), (aux_sym_try_stmt_token1, 354),
     (aux_sym_try_stmt_token2, 356), (aux_sym_catch_clause_token1, 356),
     (aux_sym_finally_clause_token1, 356), (sym_ld_rung, 358), (sym_fbd_network, 360),
     (sym_c_style_comment, 3), (sym_pascal_style_comment, 3), (sym_pragma, 3)]"

lemma ts_parse_row_1298_scan: "row_scan tokens_63_2 0 ts_parse_row_1298 = Some (Suc (Suc (Suc (Suc 0))))"
  unfolding ts_parse_row_1298_def by simp

text \<open>Lines 195553 to 195637.\<close>

definition ts_parse_row_1299 :: parse_row where
  "ts_parse_row_1299 =
    [(sym_ERR_assign_func_call, 7530), (sym_ERR_unexpected_this_in_path, 2372),
     (sym_ERR_unexpected_super_in_path, 2372), (sym_ERR_method_decl_in_body, 3150),
     (sym_extern_pragma, 7490), (sym_wasm_pragma, 3150), (sym_warn_pragma, 7490),
     (sym_allow_pragma, 3140), (sym_test_pragma, 7490), (sym_once_pragma, 7490),
     (sym_must_call_pragma, 7490), (sym_export_pragma, 7490), (sym_pou_pragma, 7194),
     (sym_direct_variable, 7675), (sym_deref_expression, 2373), (sym_variable, 7599),
     (sym_var_access, 2373), (sym_fb_body, 9465), (sym_method_decl, 3159), (sym_SFC, 7970),
     (sym_SFC_network, 7612), (sym_initial_step, 7439), (sym_variable_access, 7530),
     (sym_func_call, 2961), (sym_stmt_list, 7970), (sym__stmt, 2024), (sym_assign, 3150),
     (sym_if_stmt, 3150), (sym_case_stmt, 3150), (sym_for_stmt, 3150), (sym_while_stmt, 3150),
     (sym_repeat_stmt, 3150), (sym_raise_stmt, 3150), (sym_try_stmt, 3150),
     (sym_ERR_clause_outside_try, 3150), (sym_begin_path_expression, 2943), (sym_invocation, 2934),
     (sym_any_invocation, 2935), (sym_this_invocation, 2641), (sym_super_invocation, 2641),
     (sym_super_body_invocation, 2935), (sym_path_expression, 2627), (sym_field_expression, 2373),
     (sym_index_expression, 2373), (sym_ladder_diagram, 7970), (sym_fb_diagram, 7970),
     (aux_sym_func_decl_repeat1, 7194), (aux_sym_SFC_repeat1, 7612),
     (aux_sym_stmt_list_repeat1, 2024), (aux_sym_ladder_diagram_repeat1, 8009),
     (aux_sym_fb_diagram_repeat1, 8013), (sym_identifier, 298),
     (aux_sym_ERR_unexpected_this_in_path_token1, 304),
     (aux_sym_ERR_unexpected_super_in_path_token1, 306), (sym_line_comment, 3),
     (anon_sym_LBRACE, 308), (aux_sym_test_pragma_token1, 9), (aux_sym_once_pragma_token1, 11),
     (aux_sym_must_call_pragma_token1, 13), (aux_sym_export_pragma_token1, 15),
     (anon_sym_SEMI, 310), (anon_sym_PERCENT, 312), (aux_sym_fb_decl_token4, 3296),
     (aux_sym_method_decl_token1, 330), (aux_sym_initial_step_token1, 334),
     (aux_sym__stmt_token1, 340), (aux_sym__stmt_token2, 340), (aux_sym__stmt_token3, 340),
     (aux_sym_if_stmt_token1, 342), (aux_sym_case_stmt_token1, 344), (aux_sym_for_stmt_token1, 346),
     (aux_sym_while_stmt_token1, 348), (aux_sym_repeat_stmt_token1, 350),
     (aux_sym_raise_stmt_token1, 352), (aux_sym_try_stmt_token1, 354),
     (aux_sym_try_stmt_token2, 356), (aux_sym_catch_clause_token1, 356),
     (aux_sym_finally_clause_token1, 356), (sym_ld_rung, 358), (sym_fbd_network, 360),
     (sym_c_style_comment, 3), (sym_pascal_style_comment, 3), (sym_pragma, 3)]"

lemma ts_parse_row_1299_scan: "row_scan tokens_63_2 0 ts_parse_row_1299 = Some (Suc (Suc (Suc (Suc 0))))"
  unfolding ts_parse_row_1299_def by simp

text \<open>Lines 195638 to 195722.\<close>

definition ts_parse_row_1300 :: parse_row where
  "ts_parse_row_1300 =
    [(sym_ERR_assign_func_call, 7530), (sym_ERR_unexpected_this_in_path, 2372),
     (sym_ERR_unexpected_super_in_path, 2372), (sym_ERR_method_decl_in_body, 3150),
     (sym_extern_pragma, 7490), (sym_wasm_pragma, 3150), (sym_warn_pragma, 7490),
     (sym_allow_pragma, 3140), (sym_test_pragma, 7490), (sym_once_pragma, 7490),
     (sym_must_call_pragma, 7490), (sym_export_pragma, 7490), (sym_pou_pragma, 7194),
     (sym_direct_variable, 7675), (sym_deref_expression, 2373), (sym_variable, 7599),
     (sym_var_access, 2373), (sym_fb_body, 8664), (sym_method_decl, 3159), (sym_SFC, 7970),
     (sym_SFC_network, 7612), (sym_initial_step, 7439), (sym_variable_access, 7530),
     (sym_func_call, 2961), (sym_stmt_list, 7970), (sym__stmt, 2024), (sym_assign, 3150),
     (sym_if_stmt, 3150), (sym_case_stmt, 3150), (sym_for_stmt, 3150), (sym_while_stmt, 3150),
     (sym_repeat_stmt, 3150), (sym_raise_stmt, 3150), (sym_try_stmt, 3150),
     (sym_ERR_clause_outside_try, 3150), (sym_begin_path_expression, 2943), (sym_invocation, 2934),
     (sym_any_invocation, 2935), (sym_this_invocation, 2641), (sym_super_invocation, 2641),
     (sym_super_body_invocation, 2935), (sym_path_expression, 2627), (sym_field_expression, 2373),
     (sym_index_expression, 2373), (sym_ladder_diagram, 7970), (sym_fb_diagram, 7970),
     (aux_sym_func_decl_repeat1, 7194), (aux_sym_SFC_repeat1, 7612),
     (aux_sym_stmt_list_repeat1, 2024), (aux_sym_ladder_diagram_repeat1, 8009),
     (aux_sym_fb_diagram_repeat1, 8013), (sym_identifier, 298),
     (aux_sym_ERR_unexpected_this_in_path_token1, 304),
     (aux_sym_ERR_unexpected_super_in_path_token1, 306), (sym_line_comment, 3),
     (anon_sym_LBRACE, 308), (aux_sym_test_pragma_token1, 9), (aux_sym_once_pragma_token1, 11),
     (aux_sym_must_call_pragma_token1, 13), (aux_sym_export_pragma_token1, 15),
     (anon_sym_SEMI, 310), (anon_sym_PERCENT, 312), (aux_sym_fb_decl_token4, 3298),
     (aux_sym_method_decl_token1, 330), (aux_sym_initial_step_token1, 334),
     (aux_sym__stmt_token1, 340), (aux_sym__stmt_token2, 340), (aux_sym__stmt_token3, 340),
     (aux_sym_if_stmt_token1, 342), (aux_sym_case_stmt_token1, 344), (aux_sym_for_stmt_token1, 346),
     (aux_sym_while_stmt_token1, 348), (aux_sym_repeat_stmt_token1, 350),
     (aux_sym_raise_stmt_token1, 352), (aux_sym_try_stmt_token1, 354),
     (aux_sym_try_stmt_token2, 356), (aux_sym_catch_clause_token1, 356),
     (aux_sym_finally_clause_token1, 356), (sym_ld_rung, 358), (sym_fbd_network, 360),
     (sym_c_style_comment, 3), (sym_pascal_style_comment, 3), (sym_pragma, 3)]"

lemma ts_parse_row_1300_scan: "row_scan tokens_63_2 0 ts_parse_row_1300 = Some (Suc (Suc (Suc (Suc 0))))"
  unfolding ts_parse_row_1300_def by simp

text \<open>Lines 195723 to 195807.\<close>

definition ts_parse_row_1301 :: parse_row where
  "ts_parse_row_1301 =
    [(sym_ERR_assign_func_call, 7530), (sym_ERR_unexpected_this_in_path, 2372),
     (sym_ERR_unexpected_super_in_path, 2372), (sym_ERR_method_decl_in_body, 3150),
     (sym_extern_pragma, 7490), (sym_wasm_pragma, 3150), (sym_warn_pragma, 7490),
     (sym_allow_pragma, 3140), (sym_test_pragma, 7490), (sym_once_pragma, 7490),
     (sym_must_call_pragma, 7490), (sym_export_pragma, 7490), (sym_pou_pragma, 7194),
     (sym_direct_variable, 7675), (sym_deref_expression, 2373), (sym_variable, 7599),
     (sym_var_access, 2373), (sym_fb_body, 8669), (sym_method_decl, 3159), (sym_SFC, 7970),
     (sym_SFC_network, 7612), (sym_initial_step, 7439), (sym_variable_access, 7530),
     (sym_func_call, 2961), (sym_stmt_list, 7970), (sym__stmt, 2024), (sym_assign, 3150),
     (sym_if_stmt, 3150), (sym_case_stmt, 3150), (sym_for_stmt, 3150), (sym_while_stmt, 3150),
     (sym_repeat_stmt, 3150), (sym_raise_stmt, 3150), (sym_try_stmt, 3150),
     (sym_ERR_clause_outside_try, 3150), (sym_begin_path_expression, 2943), (sym_invocation, 2934),
     (sym_any_invocation, 2935), (sym_this_invocation, 2641), (sym_super_invocation, 2641),
     (sym_super_body_invocation, 2935), (sym_path_expression, 2627), (sym_field_expression, 2373),
     (sym_index_expression, 2373), (sym_ladder_diagram, 7970), (sym_fb_diagram, 7970),
     (aux_sym_func_decl_repeat1, 7194), (aux_sym_SFC_repeat1, 7612),
     (aux_sym_stmt_list_repeat1, 2024), (aux_sym_ladder_diagram_repeat1, 8009),
     (aux_sym_fb_diagram_repeat1, 8013), (sym_identifier, 298),
     (aux_sym_ERR_unexpected_this_in_path_token1, 304),
     (aux_sym_ERR_unexpected_super_in_path_token1, 306), (sym_line_comment, 3),
     (anon_sym_LBRACE, 308), (aux_sym_test_pragma_token1, 9), (aux_sym_once_pragma_token1, 11),
     (aux_sym_must_call_pragma_token1, 13), (aux_sym_export_pragma_token1, 15),
     (anon_sym_SEMI, 310), (anon_sym_PERCENT, 312), (aux_sym_fb_decl_token4, 3300),
     (aux_sym_method_decl_token1, 330), (aux_sym_initial_step_token1, 334),
     (aux_sym__stmt_token1, 340), (aux_sym__stmt_token2, 340), (aux_sym__stmt_token3, 340),
     (aux_sym_if_stmt_token1, 342), (aux_sym_case_stmt_token1, 344), (aux_sym_for_stmt_token1, 346),
     (aux_sym_while_stmt_token1, 348), (aux_sym_repeat_stmt_token1, 350),
     (aux_sym_raise_stmt_token1, 352), (aux_sym_try_stmt_token1, 354),
     (aux_sym_try_stmt_token2, 356), (aux_sym_catch_clause_token1, 356),
     (aux_sym_finally_clause_token1, 356), (sym_ld_rung, 358), (sym_fbd_network, 360),
     (sym_c_style_comment, 3), (sym_pascal_style_comment, 3), (sym_pragma, 3)]"

lemma ts_parse_row_1301_scan: "row_scan tokens_63_2 0 ts_parse_row_1301 = Some (Suc (Suc (Suc (Suc 0))))"
  unfolding ts_parse_row_1301_def by simp

text \<open>Lines 195808 to 195892.\<close>

definition ts_parse_row_1302 :: parse_row where
  "ts_parse_row_1302 =
    [(sym_ERR_assign_func_call, 7530), (sym_ERR_unexpected_this_in_path, 2372),
     (sym_ERR_unexpected_super_in_path, 2372), (sym_ERR_method_decl_in_body, 3150),
     (sym_extern_pragma, 7490), (sym_wasm_pragma, 3150), (sym_warn_pragma, 7490),
     (sym_allow_pragma, 3140), (sym_test_pragma, 7490), (sym_once_pragma, 7490),
     (sym_must_call_pragma, 7490), (sym_export_pragma, 7490), (sym_pou_pragma, 7194),
     (sym_direct_variable, 7675), (sym_deref_expression, 2373), (sym_variable, 7599),
     (sym_var_access, 2373), (sym_fb_body, 8676), (sym_method_decl, 3159), (sym_SFC, 7970),
     (sym_SFC_network, 7612), (sym_initial_step, 7439), (sym_variable_access, 7530),
     (sym_func_call, 2961), (sym_stmt_list, 7970), (sym__stmt, 2024), (sym_assign, 3150),
     (sym_if_stmt, 3150), (sym_case_stmt, 3150), (sym_for_stmt, 3150), (sym_while_stmt, 3150),
     (sym_repeat_stmt, 3150), (sym_raise_stmt, 3150), (sym_try_stmt, 3150),
     (sym_ERR_clause_outside_try, 3150), (sym_begin_path_expression, 2943), (sym_invocation, 2934),
     (sym_any_invocation, 2935), (sym_this_invocation, 2641), (sym_super_invocation, 2641),
     (sym_super_body_invocation, 2935), (sym_path_expression, 2627), (sym_field_expression, 2373),
     (sym_index_expression, 2373), (sym_ladder_diagram, 7970), (sym_fb_diagram, 7970),
     (aux_sym_func_decl_repeat1, 7194), (aux_sym_SFC_repeat1, 7612),
     (aux_sym_stmt_list_repeat1, 2024), (aux_sym_ladder_diagram_repeat1, 8009),
     (aux_sym_fb_diagram_repeat1, 8013), (sym_identifier, 298),
     (aux_sym_ERR_unexpected_this_in_path_token1, 304),
     (aux_sym_ERR_unexpected_super_in_path_token1, 306), (sym_line_comment, 3),
     (anon_sym_LBRACE, 308), (aux_sym_test_pragma_token1, 9), (aux_sym_once_pragma_token1, 11),
     (aux_sym_must_call_pragma_token1, 13), (aux_sym_export_pragma_token1, 15),
     (anon_sym_SEMI, 310), (anon_sym_PERCENT, 312), (aux_sym_fb_decl_token4, 3302),
     (aux_sym_method_decl_token1, 330), (aux_sym_initial_step_token1, 334),
     (aux_sym__stmt_token1, 340), (aux_sym__stmt_token2, 340), (aux_sym__stmt_token3, 340),
     (aux_sym_if_stmt_token1, 342), (aux_sym_case_stmt_token1, 344), (aux_sym_for_stmt_token1, 346),
     (aux_sym_while_stmt_token1, 348), (aux_sym_repeat_stmt_token1, 350),
     (aux_sym_raise_stmt_token1, 352), (aux_sym_try_stmt_token1, 354),
     (aux_sym_try_stmt_token2, 356), (aux_sym_catch_clause_token1, 356),
     (aux_sym_finally_clause_token1, 356), (sym_ld_rung, 358), (sym_fbd_network, 360),
     (sym_c_style_comment, 3), (sym_pascal_style_comment, 3), (sym_pragma, 3)]"

lemma ts_parse_row_1302_scan: "row_scan tokens_63_2 0 ts_parse_row_1302 = Some (Suc (Suc (Suc (Suc 0))))"
  unfolding ts_parse_row_1302_def by simp

text \<open>Lines 195893 to 195977.\<close>

definition ts_parse_row_1303 :: parse_row where
  "ts_parse_row_1303 =
    [(sym_ERR_assign_func_call, 7530), (sym_ERR_unexpected_this_in_path, 2372),
     (sym_ERR_unexpected_super_in_path, 2372), (sym_ERR_method_decl_in_body, 3150),
     (sym_extern_pragma, 7490), (sym_wasm_pragma, 3150), (sym_warn_pragma, 7490),
     (sym_allow_pragma, 3140), (sym_test_pragma, 7490), (sym_once_pragma, 7490),
     (sym_must_call_pragma, 7490), (sym_export_pragma, 7490), (sym_pou_pragma, 7194),
     (sym_direct_variable, 7675), (sym_deref_expression, 2373), (sym_variable, 7599),
     (sym_var_access, 2373), (sym_fb_body, 8691), (sym_method_decl, 3159), (sym_SFC, 7970),
     (sym_SFC_network, 7612), (sym_initial_step, 7439), (sym_variable_access, 7530),
     (sym_func_call, 2961), (sym_stmt_list, 7970), (sym__stmt, 2024), (sym_assign, 3150),
     (sym_if_stmt, 3150), (sym_case_stmt, 3150), (sym_for_stmt, 3150), (sym_while_stmt, 3150),
     (sym_repeat_stmt, 3150), (sym_raise_stmt, 3150), (sym_try_stmt, 3150),
     (sym_ERR_clause_outside_try, 3150), (sym_begin_path_expression, 2943), (sym_invocation, 2934),
     (sym_any_invocation, 2935), (sym_this_invocation, 2641), (sym_super_invocation, 2641),
     (sym_super_body_invocation, 2935), (sym_path_expression, 2627), (sym_field_expression, 2373),
     (sym_index_expression, 2373), (sym_ladder_diagram, 7970), (sym_fb_diagram, 7970),
     (aux_sym_func_decl_repeat1, 7194), (aux_sym_SFC_repeat1, 7612),
     (aux_sym_stmt_list_repeat1, 2024), (aux_sym_ladder_diagram_repeat1, 8009),
     (aux_sym_fb_diagram_repeat1, 8013), (sym_identifier, 298),
     (aux_sym_ERR_unexpected_this_in_path_token1, 304),
     (aux_sym_ERR_unexpected_super_in_path_token1, 306), (sym_line_comment, 3),
     (anon_sym_LBRACE, 308), (aux_sym_test_pragma_token1, 9), (aux_sym_once_pragma_token1, 11),
     (aux_sym_must_call_pragma_token1, 13), (aux_sym_export_pragma_token1, 15),
     (anon_sym_SEMI, 310), (anon_sym_PERCENT, 312), (aux_sym_fb_decl_token4, 3304),
     (aux_sym_method_decl_token1, 330), (aux_sym_initial_step_token1, 334),
     (aux_sym__stmt_token1, 340), (aux_sym__stmt_token2, 340), (aux_sym__stmt_token3, 340),
     (aux_sym_if_stmt_token1, 342), (aux_sym_case_stmt_token1, 344), (aux_sym_for_stmt_token1, 346),
     (aux_sym_while_stmt_token1, 348), (aux_sym_repeat_stmt_token1, 350),
     (aux_sym_raise_stmt_token1, 352), (aux_sym_try_stmt_token1, 354),
     (aux_sym_try_stmt_token2, 356), (aux_sym_catch_clause_token1, 356),
     (aux_sym_finally_clause_token1, 356), (sym_ld_rung, 358), (sym_fbd_network, 360),
     (sym_c_style_comment, 3), (sym_pascal_style_comment, 3), (sym_pragma, 3)]"

lemma ts_parse_row_1303_scan: "row_scan tokens_63_2 0 ts_parse_row_1303 = Some (Suc (Suc (Suc (Suc 0))))"
  unfolding ts_parse_row_1303_def by simp

text \<open>Lines 195978 to 196062.\<close>

definition ts_parse_row_1304 :: parse_row where
  "ts_parse_row_1304 =
    [(sym_ERR_assign_func_call, 7530), (sym_ERR_unexpected_this_in_path, 2372),
     (sym_ERR_unexpected_super_in_path, 2372), (sym_ERR_method_decl_in_body, 3150),
     (sym_extern_pragma, 7490), (sym_wasm_pragma, 3150), (sym_warn_pragma, 7490),
     (sym_allow_pragma, 3140), (sym_test_pragma, 7490), (sym_once_pragma, 7490),
     (sym_must_call_pragma, 7490), (sym_export_pragma, 7490), (sym_pou_pragma, 7194),
     (sym_direct_variable, 7675), (sym_deref_expression, 2373), (sym_variable, 7599),
     (sym_var_access, 2373), (sym_fb_body, 9494), (sym_method_decl, 3159), (sym_SFC, 7970),
     (sym_SFC_network, 7612), (sym_initial_step, 7439), (sym_variable_access, 7530),
     (sym_func_call, 2961), (sym_stmt_list, 7970), (sym__stmt, 2024), (sym_assign, 3150),
     (sym_if_stmt, 3150), (sym_case_stmt, 3150), (sym_for_stmt, 3150), (sym_while_stmt, 3150),
     (sym_repeat_stmt, 3150), (sym_raise_stmt, 3150), (sym_try_stmt, 3150),
     (sym_ERR_clause_outside_try, 3150), (sym_begin_path_expression, 2943), (sym_invocation, 2934),
     (sym_any_invocation, 2935), (sym_this_invocation, 2641), (sym_super_invocation, 2641),
     (sym_super_body_invocation, 2935), (sym_path_expression, 2627), (sym_field_expression, 2373),
     (sym_index_expression, 2373), (sym_ladder_diagram, 7970), (sym_fb_diagram, 7970),
     (aux_sym_func_decl_repeat1, 7194), (aux_sym_SFC_repeat1, 7612),
     (aux_sym_stmt_list_repeat1, 2024), (aux_sym_ladder_diagram_repeat1, 8009),
     (aux_sym_fb_diagram_repeat1, 8013), (sym_identifier, 298),
     (aux_sym_ERR_unexpected_this_in_path_token1, 304),
     (aux_sym_ERR_unexpected_super_in_path_token1, 306), (sym_line_comment, 3),
     (anon_sym_LBRACE, 308), (aux_sym_test_pragma_token1, 9), (aux_sym_once_pragma_token1, 11),
     (aux_sym_must_call_pragma_token1, 13), (aux_sym_export_pragma_token1, 15),
     (anon_sym_SEMI, 310), (anon_sym_PERCENT, 312), (aux_sym_fb_decl_token4, 3306),
     (aux_sym_method_decl_token1, 330), (aux_sym_initial_step_token1, 334),
     (aux_sym__stmt_token1, 340), (aux_sym__stmt_token2, 340), (aux_sym__stmt_token3, 340),
     (aux_sym_if_stmt_token1, 342), (aux_sym_case_stmt_token1, 344), (aux_sym_for_stmt_token1, 346),
     (aux_sym_while_stmt_token1, 348), (aux_sym_repeat_stmt_token1, 350),
     (aux_sym_raise_stmt_token1, 352), (aux_sym_try_stmt_token1, 354),
     (aux_sym_try_stmt_token2, 356), (aux_sym_catch_clause_token1, 356),
     (aux_sym_finally_clause_token1, 356), (sym_ld_rung, 358), (sym_fbd_network, 360),
     (sym_c_style_comment, 3), (sym_pascal_style_comment, 3), (sym_pragma, 3)]"

lemma ts_parse_row_1304_scan: "row_scan tokens_63_2 0 ts_parse_row_1304 = Some (Suc (Suc (Suc (Suc 0))))"
  unfolding ts_parse_row_1304_def by simp

text \<open>Lines 196063 to 196147.\<close>

definition ts_parse_row_1305 :: parse_row where
  "ts_parse_row_1305 =
    [(sym_ERR_assign_func_call, 7530), (sym_ERR_unexpected_this_in_path, 2372),
     (sym_ERR_unexpected_super_in_path, 2372), (sym_ERR_method_decl_in_body, 3150),
     (sym_extern_pragma, 7490), (sym_wasm_pragma, 3150), (sym_warn_pragma, 7490),
     (sym_allow_pragma, 3140), (sym_test_pragma, 7490), (sym_once_pragma, 7490),
     (sym_must_call_pragma, 7490), (sym_export_pragma, 7490), (sym_pou_pragma, 7194),
     (sym_direct_variable, 7675), (sym_deref_expression, 2373), (sym_variable, 7599),
     (sym_var_access, 2373), (sym_fb_body, 8697), (sym_method_decl, 3159), (sym_SFC, 7970),
     (sym_SFC_network, 7612), (sym_initial_step, 7439), (sym_variable_access, 7530),
     (sym_func_call, 2961), (sym_stmt_list, 7970), (sym__stmt, 2024), (sym_assign, 3150),
     (sym_if_stmt, 3150), (sym_case_stmt, 3150), (sym_for_stmt, 3150), (sym_while_stmt, 3150),
     (sym_repeat_stmt, 3150), (sym_raise_stmt, 3150), (sym_try_stmt, 3150),
     (sym_ERR_clause_outside_try, 3150), (sym_begin_path_expression, 2943), (sym_invocation, 2934),
     (sym_any_invocation, 2935), (sym_this_invocation, 2641), (sym_super_invocation, 2641),
     (sym_super_body_invocation, 2935), (sym_path_expression, 2627), (sym_field_expression, 2373),
     (sym_index_expression, 2373), (sym_ladder_diagram, 7970), (sym_fb_diagram, 7970),
     (aux_sym_func_decl_repeat1, 7194), (aux_sym_SFC_repeat1, 7612),
     (aux_sym_stmt_list_repeat1, 2024), (aux_sym_ladder_diagram_repeat1, 8009),
     (aux_sym_fb_diagram_repeat1, 8013), (sym_identifier, 298),
     (aux_sym_ERR_unexpected_this_in_path_token1, 304),
     (aux_sym_ERR_unexpected_super_in_path_token1, 306), (sym_line_comment, 3),
     (anon_sym_LBRACE, 308), (aux_sym_test_pragma_token1, 9), (aux_sym_once_pragma_token1, 11),
     (aux_sym_must_call_pragma_token1, 13), (aux_sym_export_pragma_token1, 15),
     (anon_sym_SEMI, 310), (anon_sym_PERCENT, 312), (aux_sym_fb_decl_token4, 3308),
     (aux_sym_method_decl_token1, 330), (aux_sym_initial_step_token1, 334),
     (aux_sym__stmt_token1, 340), (aux_sym__stmt_token2, 340), (aux_sym__stmt_token3, 340),
     (aux_sym_if_stmt_token1, 342), (aux_sym_case_stmt_token1, 344), (aux_sym_for_stmt_token1, 346),
     (aux_sym_while_stmt_token1, 348), (aux_sym_repeat_stmt_token1, 350),
     (aux_sym_raise_stmt_token1, 352), (aux_sym_try_stmt_token1, 354),
     (aux_sym_try_stmt_token2, 356), (aux_sym_catch_clause_token1, 356),
     (aux_sym_finally_clause_token1, 356), (sym_ld_rung, 358), (sym_fbd_network, 360),
     (sym_c_style_comment, 3), (sym_pascal_style_comment, 3), (sym_pragma, 3)]"

lemma ts_parse_row_1305_scan: "row_scan tokens_63_2 0 ts_parse_row_1305 = Some (Suc (Suc (Suc (Suc 0))))"
  unfolding ts_parse_row_1305_def by simp

text \<open>Lines 196148 to 196232.\<close>

definition ts_parse_row_1306 :: parse_row where
  "ts_parse_row_1306 =
    [(sym_ERR_assign_func_call, 7530), (sym_ERR_unexpected_this_in_path, 2372),
     (sym_ERR_unexpected_super_in_path, 2372), (sym_ERR_method_decl_in_body, 3150),
     (sym_extern_pragma, 7490), (sym_wasm_pragma, 3150), (sym_warn_pragma, 7490),
     (sym_allow_pragma, 3140), (sym_test_pragma, 7490), (sym_once_pragma, 7490),
     (sym_must_call_pragma, 7490), (sym_export_pragma, 7490), (sym_pou_pragma, 7194),
     (sym_direct_variable, 7675), (sym_deref_expression, 2373), (sym_variable, 7599),
     (sym_var_access, 2373), (sym_fb_body, 9513), (sym_method_decl, 3159), (sym_SFC, 7970),
     (sym_SFC_network, 7612), (sym_initial_step, 7439), (sym_variable_access, 7530),
     (sym_func_call, 2961), (sym_stmt_list, 7970), (sym__stmt, 2024), (sym_assign, 3150),
     (sym_if_stmt, 3150), (sym_case_stmt, 3150), (sym_for_stmt, 3150), (sym_while_stmt, 3150),
     (sym_repeat_stmt, 3150), (sym_raise_stmt, 3150), (sym_try_stmt, 3150),
     (sym_ERR_clause_outside_try, 3150), (sym_begin_path_expression, 2943), (sym_invocation, 2934),
     (sym_any_invocation, 2935), (sym_this_invocation, 2641), (sym_super_invocation, 2641),
     (sym_super_body_invocation, 2935), (sym_path_expression, 2627), (sym_field_expression, 2373),
     (sym_index_expression, 2373), (sym_ladder_diagram, 7970), (sym_fb_diagram, 7970),
     (aux_sym_func_decl_repeat1, 7194), (aux_sym_SFC_repeat1, 7612),
     (aux_sym_stmt_list_repeat1, 2024), (aux_sym_ladder_diagram_repeat1, 8009),
     (aux_sym_fb_diagram_repeat1, 8013), (sym_identifier, 298),
     (aux_sym_ERR_unexpected_this_in_path_token1, 304),
     (aux_sym_ERR_unexpected_super_in_path_token1, 306), (sym_line_comment, 3),
     (anon_sym_LBRACE, 308), (aux_sym_test_pragma_token1, 9), (aux_sym_once_pragma_token1, 11),
     (aux_sym_must_call_pragma_token1, 13), (aux_sym_export_pragma_token1, 15),
     (anon_sym_SEMI, 310), (anon_sym_PERCENT, 312), (aux_sym_fb_decl_token4, 3310),
     (aux_sym_method_decl_token1, 330), (aux_sym_initial_step_token1, 334),
     (aux_sym__stmt_token1, 340), (aux_sym__stmt_token2, 340), (aux_sym__stmt_token3, 340),
     (aux_sym_if_stmt_token1, 342), (aux_sym_case_stmt_token1, 344), (aux_sym_for_stmt_token1, 346),
     (aux_sym_while_stmt_token1, 348), (aux_sym_repeat_stmt_token1, 350),
     (aux_sym_raise_stmt_token1, 352), (aux_sym_try_stmt_token1, 354),
     (aux_sym_try_stmt_token2, 356), (aux_sym_catch_clause_token1, 356),
     (aux_sym_finally_clause_token1, 356), (sym_ld_rung, 358), (sym_fbd_network, 360),
     (sym_c_style_comment, 3), (sym_pascal_style_comment, 3), (sym_pragma, 3)]"

lemma ts_parse_row_1306_scan: "row_scan tokens_63_2 0 ts_parse_row_1306 = Some (Suc (Suc (Suc (Suc 0))))"
  unfolding ts_parse_row_1306_def by simp

text \<open>Lines 196233 to 196317.\<close>

definition ts_parse_row_1307 :: parse_row where
  "ts_parse_row_1307 =
    [(sym_ERR_assign_func_call, 7530), (sym_ERR_unexpected_this_in_path, 2372),
     (sym_ERR_unexpected_super_in_path, 2372), (sym_ERR_method_decl_in_body, 3150),
     (sym_extern_pragma, 7490), (sym_wasm_pragma, 3150), (sym_warn_pragma, 7490),
     (sym_allow_pragma, 3140), (sym_test_pragma, 7490), (sym_once_pragma, 7490),
     (sym_must_call_pragma, 7490), (sym_export_pragma, 7490), (sym_pou_pragma, 7194),
     (sym_direct_variable, 7675), (sym_deref_expression, 2373), (sym_variable, 7599),
     (sym_var_access, 2373), (sym_fb_body, 8719), (sym_method_decl, 3159), (sym_SFC, 7970),
     (sym_SFC_network, 7612), (sym_initial_step, 7439), (sym_variable_access, 7530),
     (sym_func_call, 2961), (sym_stmt_list, 7970), (sym__stmt, 2024), (sym_assign, 3150),
     (sym_if_stmt, 3150), (sym_case_stmt, 3150), (sym_for_stmt, 3150), (sym_while_stmt, 3150),
     (sym_repeat_stmt, 3150), (sym_raise_stmt, 3150), (sym_try_stmt, 3150),
     (sym_ERR_clause_outside_try, 3150), (sym_begin_path_expression, 2943), (sym_invocation, 2934),
     (sym_any_invocation, 2935), (sym_this_invocation, 2641), (sym_super_invocation, 2641),
     (sym_super_body_invocation, 2935), (sym_path_expression, 2627), (sym_field_expression, 2373),
     (sym_index_expression, 2373), (sym_ladder_diagram, 7970), (sym_fb_diagram, 7970),
     (aux_sym_func_decl_repeat1, 7194), (aux_sym_SFC_repeat1, 7612),
     (aux_sym_stmt_list_repeat1, 2024), (aux_sym_ladder_diagram_repeat1, 8009),
     (aux_sym_fb_diagram_repeat1, 8013), (sym_identifier, 298),
     (aux_sym_ERR_unexpected_this_in_path_token1, 304),
     (aux_sym_ERR_unexpected_super_in_path_token1, 306), (sym_line_comment, 3),
     (anon_sym_LBRACE, 308), (aux_sym_test_pragma_token1, 9), (aux_sym_once_pragma_token1, 11),
     (aux_sym_must_call_pragma_token1, 13), (aux_sym_export_pragma_token1, 15),
     (anon_sym_SEMI, 310), (anon_sym_PERCENT, 312), (aux_sym_fb_decl_token4, 3312),
     (aux_sym_method_decl_token1, 330), (aux_sym_initial_step_token1, 334),
     (aux_sym__stmt_token1, 340), (aux_sym__stmt_token2, 340), (aux_sym__stmt_token3, 340),
     (aux_sym_if_stmt_token1, 342), (aux_sym_case_stmt_token1, 344), (aux_sym_for_stmt_token1, 346),
     (aux_sym_while_stmt_token1, 348), (aux_sym_repeat_stmt_token1, 350),
     (aux_sym_raise_stmt_token1, 352), (aux_sym_try_stmt_token1, 354),
     (aux_sym_try_stmt_token2, 356), (aux_sym_catch_clause_token1, 356),
     (aux_sym_finally_clause_token1, 356), (sym_ld_rung, 358), (sym_fbd_network, 360),
     (sym_c_style_comment, 3), (sym_pascal_style_comment, 3), (sym_pragma, 3)]"

lemma ts_parse_row_1307_scan: "row_scan tokens_63_2 0 ts_parse_row_1307 = Some (Suc (Suc (Suc (Suc 0))))"
  unfolding ts_parse_row_1307_def by simp

text \<open>Lines 196318 to 196402.\<close>

definition ts_parse_row_1308 :: parse_row where
  "ts_parse_row_1308 =
    [(sym_ERR_assign_func_call, 7530), (sym_ERR_unexpected_this_in_path, 2372),
     (sym_ERR_unexpected_super_in_path, 2372), (sym_ERR_method_decl_in_body, 3150),
     (sym_extern_pragma, 7490), (sym_wasm_pragma, 3150), (sym_warn_pragma, 7490),
     (sym_allow_pragma, 3140), (sym_test_pragma, 7490), (sym_once_pragma, 7490),
     (sym_must_call_pragma, 7490), (sym_export_pragma, 7490), (sym_pou_pragma, 7194),
     (sym_direct_variable, 7675), (sym_deref_expression, 2373), (sym_variable, 7599),
     (sym_var_access, 2373), (sym_fb_body, 9525), (sym_method_decl, 3159), (sym_SFC, 7970),
     (sym_SFC_network, 7612), (sym_initial_step, 7439), (sym_variable_access, 7530),
     (sym_func_call, 2961), (sym_stmt_list, 7970), (sym__stmt, 2024), (sym_assign, 3150),
     (sym_if_stmt, 3150), (sym_case_stmt, 3150), (sym_for_stmt, 3150), (sym_while_stmt, 3150),
     (sym_repeat_stmt, 3150), (sym_raise_stmt, 3150), (sym_try_stmt, 3150),
     (sym_ERR_clause_outside_try, 3150), (sym_begin_path_expression, 2943), (sym_invocation, 2934),
     (sym_any_invocation, 2935), (sym_this_invocation, 2641), (sym_super_invocation, 2641),
     (sym_super_body_invocation, 2935), (sym_path_expression, 2627), (sym_field_expression, 2373),
     (sym_index_expression, 2373), (sym_ladder_diagram, 7970), (sym_fb_diagram, 7970),
     (aux_sym_func_decl_repeat1, 7194), (aux_sym_SFC_repeat1, 7612),
     (aux_sym_stmt_list_repeat1, 2024), (aux_sym_ladder_diagram_repeat1, 8009),
     (aux_sym_fb_diagram_repeat1, 8013), (sym_identifier, 298),
     (aux_sym_ERR_unexpected_this_in_path_token1, 304),
     (aux_sym_ERR_unexpected_super_in_path_token1, 306), (sym_line_comment, 3),
     (anon_sym_LBRACE, 308), (aux_sym_test_pragma_token1, 9), (aux_sym_once_pragma_token1, 11),
     (aux_sym_must_call_pragma_token1, 13), (aux_sym_export_pragma_token1, 15),
     (anon_sym_SEMI, 310), (anon_sym_PERCENT, 312), (aux_sym_fb_decl_token4, 3314),
     (aux_sym_method_decl_token1, 330), (aux_sym_initial_step_token1, 334),
     (aux_sym__stmt_token1, 340), (aux_sym__stmt_token2, 340), (aux_sym__stmt_token3, 340),
     (aux_sym_if_stmt_token1, 342), (aux_sym_case_stmt_token1, 344), (aux_sym_for_stmt_token1, 346),
     (aux_sym_while_stmt_token1, 348), (aux_sym_repeat_stmt_token1, 350),
     (aux_sym_raise_stmt_token1, 352), (aux_sym_try_stmt_token1, 354),
     (aux_sym_try_stmt_token2, 356), (aux_sym_catch_clause_token1, 356),
     (aux_sym_finally_clause_token1, 356), (sym_ld_rung, 358), (sym_fbd_network, 360),
     (sym_c_style_comment, 3), (sym_pascal_style_comment, 3), (sym_pragma, 3)]"

lemma ts_parse_row_1308_scan: "row_scan tokens_63_2 0 ts_parse_row_1308 = Some (Suc (Suc (Suc (Suc 0))))"
  unfolding ts_parse_row_1308_def by simp

text \<open>Lines 196403 to 196487.\<close>

definition ts_parse_row_1309 :: parse_row where
  "ts_parse_row_1309 =
    [(sym_ERR_assign_func_call, 7530), (sym_ERR_unexpected_this_in_path, 2372),
     (sym_ERR_unexpected_super_in_path, 2372), (sym_ERR_method_decl_in_body, 3150),
     (sym_extern_pragma, 7490), (sym_wasm_pragma, 3150), (sym_warn_pragma, 7490),
     (sym_allow_pragma, 3140), (sym_test_pragma, 7490), (sym_once_pragma, 7490),
     (sym_must_call_pragma, 7490), (sym_export_pragma, 7490), (sym_pou_pragma, 7194),
     (sym_direct_variable, 7675), (sym_deref_expression, 2373), (sym_variable, 7599),
     (sym_var_access, 2373), (sym_fb_body, 8738), (sym_method_decl, 3159), (sym_SFC, 7970),
     (sym_SFC_network, 7612), (sym_initial_step, 7439), (sym_variable_access, 7530),
     (sym_func_call, 2961), (sym_stmt_list, 7970), (sym__stmt, 2024), (sym_assign, 3150),
     (sym_if_stmt, 3150), (sym_case_stmt, 3150), (sym_for_stmt, 3150), (sym_while_stmt, 3150),
     (sym_repeat_stmt, 3150), (sym_raise_stmt, 3150), (sym_try_stmt, 3150),
     (sym_ERR_clause_outside_try, 3150), (sym_begin_path_expression, 2943), (sym_invocation, 2934),
     (sym_any_invocation, 2935), (sym_this_invocation, 2641), (sym_super_invocation, 2641),
     (sym_super_body_invocation, 2935), (sym_path_expression, 2627), (sym_field_expression, 2373),
     (sym_index_expression, 2373), (sym_ladder_diagram, 7970), (sym_fb_diagram, 7970),
     (aux_sym_func_decl_repeat1, 7194), (aux_sym_SFC_repeat1, 7612),
     (aux_sym_stmt_list_repeat1, 2024), (aux_sym_ladder_diagram_repeat1, 8009),
     (aux_sym_fb_diagram_repeat1, 8013), (sym_identifier, 298),
     (aux_sym_ERR_unexpected_this_in_path_token1, 304),
     (aux_sym_ERR_unexpected_super_in_path_token1, 306), (sym_line_comment, 3),
     (anon_sym_LBRACE, 308), (aux_sym_test_pragma_token1, 9), (aux_sym_once_pragma_token1, 11),
     (aux_sym_must_call_pragma_token1, 13), (aux_sym_export_pragma_token1, 15),
     (anon_sym_SEMI, 310), (anon_sym_PERCENT, 312), (aux_sym_fb_decl_token4, 3316),
     (aux_sym_method_decl_token1, 330), (aux_sym_initial_step_token1, 334),
     (aux_sym__stmt_token1, 340), (aux_sym__stmt_token2, 340), (aux_sym__stmt_token3, 340),
     (aux_sym_if_stmt_token1, 342), (aux_sym_case_stmt_token1, 344), (aux_sym_for_stmt_token1, 346),
     (aux_sym_while_stmt_token1, 348), (aux_sym_repeat_stmt_token1, 350),
     (aux_sym_raise_stmt_token1, 352), (aux_sym_try_stmt_token1, 354),
     (aux_sym_try_stmt_token2, 356), (aux_sym_catch_clause_token1, 356),
     (aux_sym_finally_clause_token1, 356), (sym_ld_rung, 358), (sym_fbd_network, 360),
     (sym_c_style_comment, 3), (sym_pascal_style_comment, 3), (sym_pragma, 3)]"

lemma ts_parse_row_1309_scan: "row_scan tokens_63_2 0 ts_parse_row_1309 = Some (Suc (Suc (Suc (Suc 0))))"
  unfolding ts_parse_row_1309_def by simp

text \<open>Lines 196488 to 196572.\<close>

definition ts_parse_row_1310 :: parse_row where
  "ts_parse_row_1310 =
    [(sym_ERR_assign_func_call, 7530), (sym_ERR_unexpected_this_in_path, 2372),
     (sym_ERR_unexpected_super_in_path, 2372), (sym_ERR_method_decl_in_body, 3150),
     (sym_extern_pragma, 7490), (sym_wasm_pragma, 3150), (sym_warn_pragma, 7490),
     (sym_allow_pragma, 3140), (sym_test_pragma, 7490), (sym_once_pragma, 7490),
     (sym_must_call_pragma, 7490), (sym_export_pragma, 7490), (sym_pou_pragma, 7194),
     (sym_direct_variable, 7675), (sym_deref_expression, 2373), (sym_variable, 7599),
     (sym_var_access, 2373), (sym_fb_body, 8746), (sym_method_decl, 3159), (sym_SFC, 7970),
     (sym_SFC_network, 7612), (sym_initial_step, 7439), (sym_variable_access, 7530),
     (sym_func_call, 2961), (sym_stmt_list, 7970), (sym__stmt, 2024), (sym_assign, 3150),
     (sym_if_stmt, 3150), (sym_case_stmt, 3150), (sym_for_stmt, 3150), (sym_while_stmt, 3150),
     (sym_repeat_stmt, 3150), (sym_raise_stmt, 3150), (sym_try_stmt, 3150),
     (sym_ERR_clause_outside_try, 3150), (sym_begin_path_expression, 2943), (sym_invocation, 2934),
     (sym_any_invocation, 2935), (sym_this_invocation, 2641), (sym_super_invocation, 2641),
     (sym_super_body_invocation, 2935), (sym_path_expression, 2627), (sym_field_expression, 2373),
     (sym_index_expression, 2373), (sym_ladder_diagram, 7970), (sym_fb_diagram, 7970),
     (aux_sym_func_decl_repeat1, 7194), (aux_sym_SFC_repeat1, 7612),
     (aux_sym_stmt_list_repeat1, 2024), (aux_sym_ladder_diagram_repeat1, 8009),
     (aux_sym_fb_diagram_repeat1, 8013), (sym_identifier, 298),
     (aux_sym_ERR_unexpected_this_in_path_token1, 304),
     (aux_sym_ERR_unexpected_super_in_path_token1, 306), (sym_line_comment, 3),
     (anon_sym_LBRACE, 308), (aux_sym_test_pragma_token1, 9), (aux_sym_once_pragma_token1, 11),
     (aux_sym_must_call_pragma_token1, 13), (aux_sym_export_pragma_token1, 15),
     (anon_sym_SEMI, 310), (anon_sym_PERCENT, 312), (aux_sym_fb_decl_token4, 3318),
     (aux_sym_method_decl_token1, 330), (aux_sym_initial_step_token1, 334),
     (aux_sym__stmt_token1, 340), (aux_sym__stmt_token2, 340), (aux_sym__stmt_token3, 340),
     (aux_sym_if_stmt_token1, 342), (aux_sym_case_stmt_token1, 344), (aux_sym_for_stmt_token1, 346),
     (aux_sym_while_stmt_token1, 348), (aux_sym_repeat_stmt_token1, 350),
     (aux_sym_raise_stmt_token1, 352), (aux_sym_try_stmt_token1, 354),
     (aux_sym_try_stmt_token2, 356), (aux_sym_catch_clause_token1, 356),
     (aux_sym_finally_clause_token1, 356), (sym_ld_rung, 358), (sym_fbd_network, 360),
     (sym_c_style_comment, 3), (sym_pascal_style_comment, 3), (sym_pragma, 3)]"

lemma ts_parse_row_1310_scan: "row_scan tokens_63_2 0 ts_parse_row_1310 = Some (Suc (Suc (Suc (Suc 0))))"
  unfolding ts_parse_row_1310_def by simp

text \<open>Lines 196573 to 196657.\<close>

definition ts_parse_row_1311 :: parse_row where
  "ts_parse_row_1311 =
    [(sym_ERR_assign_func_call, 7530), (sym_ERR_unexpected_this_in_path, 2372),
     (sym_ERR_unexpected_super_in_path, 2372), (sym_ERR_method_decl_in_body, 3150),
     (sym_extern_pragma, 7490), (sym_wasm_pragma, 3150), (sym_warn_pragma, 7490),
     (sym_allow_pragma, 3140), (sym_test_pragma, 7490), (sym_once_pragma, 7490),
     (sym_must_call_pragma, 7490), (sym_export_pragma, 7490), (sym_pou_pragma, 7194),
     (sym_direct_variable, 7675), (sym_deref_expression, 2373), (sym_variable, 7599),
     (sym_var_access, 2373), (sym_fb_body, 8754), (sym_method_decl, 3159), (sym_SFC, 7970),
     (sym_SFC_network, 7612), (sym_initial_step, 7439), (sym_variable_access, 7530),
     (sym_func_call, 2961), (sym_stmt_list, 7970), (sym__stmt, 2024), (sym_assign, 3150),
     (sym_if_stmt, 3150), (sym_case_stmt, 3150), (sym_for_stmt, 3150), (sym_while_stmt, 3150),
     (sym_repeat_stmt, 3150), (sym_raise_stmt, 3150), (sym_try_stmt, 3150),
     (sym_ERR_clause_outside_try, 3150), (sym_begin_path_expression, 2943), (sym_invocation, 2934),
     (sym_any_invocation, 2935), (sym_this_invocation, 2641), (sym_super_invocation, 2641),
     (sym_super_body_invocation, 2935), (sym_path_expression, 2627), (sym_field_expression, 2373),
     (sym_index_expression, 2373), (sym_ladder_diagram, 7970), (sym_fb_diagram, 7970),
     (aux_sym_func_decl_repeat1, 7194), (aux_sym_SFC_repeat1, 7612),
     (aux_sym_stmt_list_repeat1, 2024), (aux_sym_ladder_diagram_repeat1, 8009),
     (aux_sym_fb_diagram_repeat1, 8013), (sym_identifier, 298),
     (aux_sym_ERR_unexpected_this_in_path_token1, 304),
     (aux_sym_ERR_unexpected_super_in_path_token1, 306), (sym_line_comment, 3),
     (anon_sym_LBRACE, 308), (aux_sym_test_pragma_token1, 9), (aux_sym_once_pragma_token1, 11),
     (aux_sym_must_call_pragma_token1, 13), (aux_sym_export_pragma_token1, 15),
     (anon_sym_SEMI, 310), (anon_sym_PERCENT, 312), (aux_sym_fb_decl_token4, 3320),
     (aux_sym_method_decl_token1, 330), (aux_sym_initial_step_token1, 334),
     (aux_sym__stmt_token1, 340), (aux_sym__stmt_token2, 340), (aux_sym__stmt_token3, 340),
     (aux_sym_if_stmt_token1, 342), (aux_sym_case_stmt_token1, 344), (aux_sym_for_stmt_token1, 346),
     (aux_sym_while_stmt_token1, 348), (aux_sym_repeat_stmt_token1, 350),
     (aux_sym_raise_stmt_token1, 352), (aux_sym_try_stmt_token1, 354),
     (aux_sym_try_stmt_token2, 356), (aux_sym_catch_clause_token1, 356),
     (aux_sym_finally_clause_token1, 356), (sym_ld_rung, 358), (sym_fbd_network, 360),
     (sym_c_style_comment, 3), (sym_pascal_style_comment, 3), (sym_pragma, 3)]"

lemma ts_parse_row_1311_scan: "row_scan tokens_63_2 0 ts_parse_row_1311 = Some (Suc (Suc (Suc (Suc 0))))"
  unfolding ts_parse_row_1311_def by simp

text \<open>Lines 196658 to 196742.\<close>

definition ts_parse_row_1312 :: parse_row where
  "ts_parse_row_1312 =
    [(sym_ERR_assign_func_call, 7530), (sym_ERR_unexpected_this_in_path, 2372),
     (sym_ERR_unexpected_super_in_path, 2372), (sym_ERR_method_decl_in_body, 3150),
     (sym_extern_pragma, 7490), (sym_wasm_pragma, 3150), (sym_warn_pragma, 7490),
     (sym_allow_pragma, 3140), (sym_test_pragma, 7490), (sym_once_pragma, 7490),
     (sym_must_call_pragma, 7490), (sym_export_pragma, 7490), (sym_pou_pragma, 7194),
     (sym_direct_variable, 7675), (sym_deref_expression, 2373), (sym_variable, 7599),
     (sym_var_access, 2373), (sym_fb_body, 9544), (sym_method_decl, 3159), (sym_SFC, 7970),
     (sym_SFC_network, 7612), (sym_initial_step, 7439), (sym_variable_access, 7530),
     (sym_func_call, 2961), (sym_stmt_list, 7970), (sym__stmt, 2024), (sym_assign, 3150),
     (sym_if_stmt, 3150), (sym_case_stmt, 3150), (sym_for_stmt, 3150), (sym_while_stmt, 3150),
     (sym_repeat_stmt, 3150), (sym_raise_stmt, 3150), (sym_try_stmt, 3150),
     (sym_ERR_clause_outside_try, 3150), (sym_begin_path_expression, 2943), (sym_invocation, 2934),
     (sym_any_invocation, 2935), (sym_this_invocation, 2641), (sym_super_invocation, 2641),
     (sym_super_body_invocation, 2935), (sym_path_expression, 2627), (sym_field_expression, 2373),
     (sym_index_expression, 2373), (sym_ladder_diagram, 7970), (sym_fb_diagram, 7970),
     (aux_sym_func_decl_repeat1, 7194), (aux_sym_SFC_repeat1, 7612),
     (aux_sym_stmt_list_repeat1, 2024), (aux_sym_ladder_diagram_repeat1, 8009),
     (aux_sym_fb_diagram_repeat1, 8013), (sym_identifier, 298),
     (aux_sym_ERR_unexpected_this_in_path_token1, 304),
     (aux_sym_ERR_unexpected_super_in_path_token1, 306), (sym_line_comment, 3),
     (anon_sym_LBRACE, 308), (aux_sym_test_pragma_token1, 9), (aux_sym_once_pragma_token1, 11),
     (aux_sym_must_call_pragma_token1, 13), (aux_sym_export_pragma_token1, 15),
     (anon_sym_SEMI, 310), (anon_sym_PERCENT, 312), (aux_sym_fb_decl_token4, 518),
     (aux_sym_method_decl_token1, 330), (aux_sym_initial_step_token1, 334),
     (aux_sym__stmt_token1, 340), (aux_sym__stmt_token2, 340), (aux_sym__stmt_token3, 340),
     (aux_sym_if_stmt_token1, 342), (aux_sym_case_stmt_token1, 344), (aux_sym_for_stmt_token1, 346),
     (aux_sym_while_stmt_token1, 348), (aux_sym_repeat_stmt_token1, 350),
     (aux_sym_raise_stmt_token1, 352), (aux_sym_try_stmt_token1, 354),
     (aux_sym_try_stmt_token2, 356), (aux_sym_catch_clause_token1, 356),
     (aux_sym_finally_clause_token1, 356), (sym_ld_rung, 358), (sym_fbd_network, 360),
     (sym_c_style_comment, 3), (sym_pascal_style_comment, 3), (sym_pragma, 3)]"

lemma ts_parse_row_1312_scan: "row_scan tokens_63_2 0 ts_parse_row_1312 = Some (Suc (Suc (Suc (Suc 0))))"
  unfolding ts_parse_row_1312_def by simp

text \<open>Lines 196743 to 196827.\<close>

definition ts_parse_row_1313 :: parse_row where
  "ts_parse_row_1313 =
    [(sym_ERR_assign_func_call, 7530), (sym_ERR_unexpected_this_in_path, 2372),
     (sym_ERR_unexpected_super_in_path, 2372), (sym_ERR_method_decl_in_body, 3150),
     (sym_extern_pragma, 7490), (sym_wasm_pragma, 3150), (sym_warn_pragma, 7490),
     (sym_allow_pragma, 3140), (sym_test_pragma, 7490), (sym_once_pragma, 7490),
     (sym_must_call_pragma, 7490), (sym_export_pragma, 7490), (sym_pou_pragma, 7194),
     (sym_direct_variable, 7675), (sym_deref_expression, 2373), (sym_variable, 7599),
     (sym_var_access, 2373), (sym_fb_body, 8768), (sym_method_decl, 3159), (sym_SFC, 7970),
     (sym_SFC_network, 7612), (sym_initial_step, 7439), (sym_variable_access, 7530),
     (sym_func_call, 2961), (sym_stmt_list, 7970), (sym__stmt, 2024), (sym_assign, 3150),
     (sym_if_stmt, 3150), (sym_case_stmt, 3150), (sym_for_stmt, 3150), (sym_while_stmt, 3150),
     (sym_repeat_stmt, 3150), (sym_raise_stmt, 3150), (sym_try_stmt, 3150),
     (sym_ERR_clause_outside_try, 3150), (sym_begin_path_expression, 2943), (sym_invocation, 2934),
     (sym_any_invocation, 2935), (sym_this_invocation, 2641), (sym_super_invocation, 2641),
     (sym_super_body_invocation, 2935), (sym_path_expression, 2627), (sym_field_expression, 2373),
     (sym_index_expression, 2373), (sym_ladder_diagram, 7970), (sym_fb_diagram, 7970),
     (aux_sym_func_decl_repeat1, 7194), (aux_sym_SFC_repeat1, 7612),
     (aux_sym_stmt_list_repeat1, 2024), (aux_sym_ladder_diagram_repeat1, 8009),
     (aux_sym_fb_diagram_repeat1, 8013), (sym_identifier, 298),
     (aux_sym_ERR_unexpected_this_in_path_token1, 304),
     (aux_sym_ERR_unexpected_super_in_path_token1, 306), (sym_line_comment, 3),
     (anon_sym_LBRACE, 308), (aux_sym_test_pragma_token1, 9), (aux_sym_once_pragma_token1, 11),
     (aux_sym_must_call_pragma_token1, 13), (aux_sym_export_pragma_token1, 15),
     (anon_sym_SEMI, 310), (anon_sym_PERCENT, 312), (aux_sym_fb_decl_token4, 3322),
     (aux_sym_method_decl_token1, 330), (aux_sym_initial_step_token1, 334),
     (aux_sym__stmt_token1, 340), (aux_sym__stmt_token2, 340), (aux_sym__stmt_token3, 340),
     (aux_sym_if_stmt_token1, 342), (aux_sym_case_stmt_token1, 344), (aux_sym_for_stmt_token1, 346),
     (aux_sym_while_stmt_token1, 348), (aux_sym_repeat_stmt_token1, 350),
     (aux_sym_raise_stmt_token1, 352), (aux_sym_try_stmt_token1, 354),
     (aux_sym_try_stmt_token2, 356), (aux_sym_catch_clause_token1, 356),
     (aux_sym_finally_clause_token1, 356), (sym_ld_rung, 358), (sym_fbd_network, 360),
     (sym_c_style_comment, 3), (sym_pascal_style_comment, 3), (sym_pragma, 3)]"

lemma ts_parse_row_1313_scan: "row_scan tokens_63_2 0 ts_parse_row_1313 = Some (Suc (Suc (Suc (Suc 0))))"
  unfolding ts_parse_row_1313_def by simp

text \<open>Lines 196828 to 196912.\<close>

definition ts_parse_row_1314 :: parse_row where
  "ts_parse_row_1314 =
    [(sym_ERR_assign_func_call, 7530), (sym_ERR_unexpected_this_in_path, 2372),
     (sym_ERR_unexpected_super_in_path, 2372), (sym_ERR_method_decl_in_body, 3150),
     (sym_extern_pragma, 7490), (sym_wasm_pragma, 3150), (sym_warn_pragma, 7490),
     (sym_allow_pragma, 3140), (sym_test_pragma, 7490), (sym_once_pragma, 7490),
     (sym_must_call_pragma, 7490), (sym_export_pragma, 7490), (sym_pou_pragma, 7194),
     (sym_direct_variable, 7675), (sym_deref_expression, 2373), (sym_variable, 7599),
     (sym_var_access, 2373), (sym_fb_body, 8785), (sym_method_decl, 3159), (sym_SFC, 7970),
     (sym_SFC_network, 7612), (sym_initial_step, 7439), (sym_variable_access, 7530),
     (sym_func_call, 2961), (sym_stmt_list, 7970), (sym__stmt, 2024), (sym_assign, 3150),
     (sym_if_stmt, 3150), (sym_case_stmt, 3150), (sym_for_stmt, 3150), (sym_while_stmt, 3150),
     (sym_repeat_stmt, 3150), (sym_raise_stmt, 3150), (sym_try_stmt, 3150),
     (sym_ERR_clause_outside_try, 3150), (sym_begin_path_expression, 2943), (sym_invocation, 2934),
     (sym_any_invocation, 2935), (sym_this_invocation, 2641), (sym_super_invocation, 2641),
     (sym_super_body_invocation, 2935), (sym_path_expression, 2627), (sym_field_expression, 2373),
     (sym_index_expression, 2373), (sym_ladder_diagram, 7970), (sym_fb_diagram, 7970),
     (aux_sym_func_decl_repeat1, 7194), (aux_sym_SFC_repeat1, 7612),
     (aux_sym_stmt_list_repeat1, 2024), (aux_sym_ladder_diagram_repeat1, 8009),
     (aux_sym_fb_diagram_repeat1, 8013), (sym_identifier, 298),
     (aux_sym_ERR_unexpected_this_in_path_token1, 304),
     (aux_sym_ERR_unexpected_super_in_path_token1, 306), (sym_line_comment, 3),
     (anon_sym_LBRACE, 308), (aux_sym_test_pragma_token1, 9), (aux_sym_once_pragma_token1, 11),
     (aux_sym_must_call_pragma_token1, 13), (aux_sym_export_pragma_token1, 15),
     (anon_sym_SEMI, 310), (anon_sym_PERCENT, 312), (aux_sym_fb_decl_token4, 3324),
     (aux_sym_method_decl_token1, 330), (aux_sym_initial_step_token1, 334),
     (aux_sym__stmt_token1, 340), (aux_sym__stmt_token2, 340), (aux_sym__stmt_token3, 340),
     (aux_sym_if_stmt_token1, 342), (aux_sym_case_stmt_token1, 344), (aux_sym_for_stmt_token1, 346),
     (aux_sym_while_stmt_token1, 348), (aux_sym_repeat_stmt_token1, 350),
     (aux_sym_raise_stmt_token1, 352), (aux_sym_try_stmt_token1, 354),
     (aux_sym_try_stmt_token2, 356), (aux_sym_catch_clause_token1, 356),
     (aux_sym_finally_clause_token1, 356), (sym_ld_rung, 358), (sym_fbd_network, 360),
     (sym_c_style_comment, 3), (sym_pascal_style_comment, 3), (sym_pragma, 3)]"

lemma ts_parse_row_1314_scan: "row_scan tokens_63_2 0 ts_parse_row_1314 = Some (Suc (Suc (Suc (Suc 0))))"
  unfolding ts_parse_row_1314_def by simp

text \<open>Lines 196913 to 196997.\<close>

definition ts_parse_row_1315 :: parse_row where
  "ts_parse_row_1315 =
    [(sym_ERR_assign_func_call, 7530), (sym_ERR_unexpected_this_in_path, 2372),
     (sym_ERR_unexpected_super_in_path, 2372), (sym_ERR_method_decl_in_body, 3150),
     (sym_extern_pragma, 7490), (sym_wasm_pragma, 3150), (sym_warn_pragma, 7490),
     (sym_allow_pragma, 3140), (sym_test_pragma, 7490), (sym_once_pragma, 7490),
     (sym_must_call_pragma, 7490), (sym_export_pragma, 7490), (sym_pou_pragma, 7194),
     (sym_direct_variable, 7675), (sym_deref_expression, 2373), (sym_variable, 7599),
     (sym_var_access, 2373), (sym_fb_body, 9583), (sym_method_decl, 3159), (sym_SFC, 7970),
     (sym_SFC_network, 7612), (sym_initial_step, 7439), (sym_variable_access, 7530),
     (sym_func_call, 2961), (sym_stmt_list, 7970), (sym__stmt, 2024), (sym_assign, 3150),
     (sym_if_stmt, 3150), (sym_case_stmt, 3150), (sym_for_stmt, 3150), (sym_while_stmt, 3150),
     (sym_repeat_stmt, 3150), (sym_raise_stmt, 3150), (sym_try_stmt, 3150),
     (sym_ERR_clause_outside_try, 3150), (sym_begin_path_expression, 2943), (sym_invocation, 2934),
     (sym_any_invocation, 2935), (sym_this_invocation, 2641), (sym_super_invocation, 2641),
     (sym_super_body_invocation, 2935), (sym_path_expression, 2627), (sym_field_expression, 2373),
     (sym_index_expression, 2373), (sym_ladder_diagram, 7970), (sym_fb_diagram, 7970),
     (aux_sym_func_decl_repeat1, 7194), (aux_sym_SFC_repeat1, 7612),
     (aux_sym_stmt_list_repeat1, 2024), (aux_sym_ladder_diagram_repeat1, 8009),
     (aux_sym_fb_diagram_repeat1, 8013), (sym_identifier, 298),
     (aux_sym_ERR_unexpected_this_in_path_token1, 304),
     (aux_sym_ERR_unexpected_super_in_path_token1, 306), (sym_line_comment, 3),
     (anon_sym_LBRACE, 308), (aux_sym_test_pragma_token1, 9), (aux_sym_once_pragma_token1, 11),
     (aux_sym_must_call_pragma_token1, 13), (aux_sym_export_pragma_token1, 15),
     (anon_sym_SEMI, 310), (anon_sym_PERCENT, 312), (aux_sym_fb_decl_token4, 3326),
     (aux_sym_method_decl_token1, 330), (aux_sym_initial_step_token1, 334),
     (aux_sym__stmt_token1, 340), (aux_sym__stmt_token2, 340), (aux_sym__stmt_token3, 340),
     (aux_sym_if_stmt_token1, 342), (aux_sym_case_stmt_token1, 344), (aux_sym_for_stmt_token1, 346),
     (aux_sym_while_stmt_token1, 348), (aux_sym_repeat_stmt_token1, 350),
     (aux_sym_raise_stmt_token1, 352), (aux_sym_try_stmt_token1, 354),
     (aux_sym_try_stmt_token2, 356), (aux_sym_catch_clause_token1, 356),
     (aux_sym_finally_clause_token1, 356), (sym_ld_rung, 358), (sym_fbd_network, 360),
     (sym_c_style_comment, 3), (sym_pascal_style_comment, 3), (sym_pragma, 3)]"

lemma ts_parse_row_1315_scan: "row_scan tokens_63_2 0 ts_parse_row_1315 = Some (Suc (Suc (Suc (Suc 0))))"
  unfolding ts_parse_row_1315_def by simp

text \<open>Lines 196998 to 197082.\<close>

definition ts_parse_row_1316 :: parse_row where
  "ts_parse_row_1316 =
    [(sym_ERR_assign_func_call, 7530), (sym_ERR_unexpected_this_in_path, 2372),
     (sym_ERR_unexpected_super_in_path, 2372), (sym_ERR_method_decl_in_body, 3150),
     (sym_extern_pragma, 7490), (sym_wasm_pragma, 3150), (sym_warn_pragma, 7490),
     (sym_allow_pragma, 3140), (sym_test_pragma, 7490), (sym_once_pragma, 7490),
     (sym_must_call_pragma, 7490), (sym_export_pragma, 7490), (sym_pou_pragma, 7194),
     (sym_direct_variable, 7675), (sym_deref_expression, 2373), (sym_variable, 7599),
     (sym_var_access, 2373), (sym_fb_body, 8800), (sym_method_decl, 3159), (sym_SFC, 7970),
     (sym_SFC_network, 7612), (sym_initial_step, 7439), (sym_variable_access, 7530),
     (sym_func_call, 2961), (sym_stmt_list, 7970), (sym__stmt, 2024), (sym_assign, 3150),
     (sym_if_stmt, 3150), (sym_case_stmt, 3150), (sym_for_stmt, 3150), (sym_while_stmt, 3150),
     (sym_repeat_stmt, 3150), (sym_raise_stmt, 3150), (sym_try_stmt, 3150),
     (sym_ERR_clause_outside_try, 3150), (sym_begin_path_expression, 2943), (sym_invocation, 2934),
     (sym_any_invocation, 2935), (sym_this_invocation, 2641), (sym_super_invocation, 2641),
     (sym_super_body_invocation, 2935), (sym_path_expression, 2627), (sym_field_expression, 2373),
     (sym_index_expression, 2373), (sym_ladder_diagram, 7970), (sym_fb_diagram, 7970),
     (aux_sym_func_decl_repeat1, 7194), (aux_sym_SFC_repeat1, 7612),
     (aux_sym_stmt_list_repeat1, 2024), (aux_sym_ladder_diagram_repeat1, 8009),
     (aux_sym_fb_diagram_repeat1, 8013), (sym_identifier, 298),
     (aux_sym_ERR_unexpected_this_in_path_token1, 304),
     (aux_sym_ERR_unexpected_super_in_path_token1, 306), (sym_line_comment, 3),
     (anon_sym_LBRACE, 308), (aux_sym_test_pragma_token1, 9), (aux_sym_once_pragma_token1, 11),
     (aux_sym_must_call_pragma_token1, 13), (aux_sym_export_pragma_token1, 15),
     (anon_sym_SEMI, 310), (anon_sym_PERCENT, 312), (aux_sym_fb_decl_token4, 3328),
     (aux_sym_method_decl_token1, 330), (aux_sym_initial_step_token1, 334),
     (aux_sym__stmt_token1, 340), (aux_sym__stmt_token2, 340), (aux_sym__stmt_token3, 340),
     (aux_sym_if_stmt_token1, 342), (aux_sym_case_stmt_token1, 344), (aux_sym_for_stmt_token1, 346),
     (aux_sym_while_stmt_token1, 348), (aux_sym_repeat_stmt_token1, 350),
     (aux_sym_raise_stmt_token1, 352), (aux_sym_try_stmt_token1, 354),
     (aux_sym_try_stmt_token2, 356), (aux_sym_catch_clause_token1, 356),
     (aux_sym_finally_clause_token1, 356), (sym_ld_rung, 358), (sym_fbd_network, 360),
     (sym_c_style_comment, 3), (sym_pascal_style_comment, 3), (sym_pragma, 3)]"

lemma ts_parse_row_1316_scan: "row_scan tokens_63_2 0 ts_parse_row_1316 = Some (Suc (Suc (Suc (Suc 0))))"
  unfolding ts_parse_row_1316_def by simp

text \<open>Lines 197083 to 197167.\<close>

definition ts_parse_row_1317 :: parse_row where
  "ts_parse_row_1317 =
    [(sym_ERR_assign_func_call, 7530), (sym_ERR_unexpected_this_in_path, 2372),
     (sym_ERR_unexpected_super_in_path, 2372), (sym_ERR_method_decl_in_body, 3150),
     (sym_extern_pragma, 7490), (sym_wasm_pragma, 3150), (sym_warn_pragma, 7490),
     (sym_allow_pragma, 3140), (sym_test_pragma, 7490), (sym_once_pragma, 7490),
     (sym_must_call_pragma, 7490), (sym_export_pragma, 7490), (sym_pou_pragma, 7194),
     (sym_direct_variable, 7675), (sym_deref_expression, 2373), (sym_variable, 7599),
     (sym_var_access, 2373), (sym_fb_body, 9591), (sym_method_decl, 3159), (sym_SFC, 7970),
     (sym_SFC_network, 7612), (sym_initial_step, 7439), (sym_variable_access, 7530),
     (sym_func_call, 2961), (sym_stmt_list, 7970), (sym__stmt, 2024), (sym_assign, 3150),
     (sym_if_stmt, 3150), (sym_case_stmt, 3150), (sym_for_stmt, 3150), (sym_while_stmt, 3150),
     (sym_repeat_stmt, 3150), (sym_raise_stmt, 3150), (sym_try_stmt, 3150),
     (sym_ERR_clause_outside_try, 3150), (sym_begin_path_expression, 2943), (sym_invocation, 2934),
     (sym_any_invocation, 2935), (sym_this_invocation, 2641), (sym_super_invocation, 2641),
     (sym_super_body_invocation, 2935), (sym_path_expression, 2627), (sym_field_expression, 2373),
     (sym_index_expression, 2373), (sym_ladder_diagram, 7970), (sym_fb_diagram, 7970),
     (aux_sym_func_decl_repeat1, 7194), (aux_sym_SFC_repeat1, 7612),
     (aux_sym_stmt_list_repeat1, 2024), (aux_sym_ladder_diagram_repeat1, 8009),
     (aux_sym_fb_diagram_repeat1, 8013), (sym_identifier, 298),
     (aux_sym_ERR_unexpected_this_in_path_token1, 304),
     (aux_sym_ERR_unexpected_super_in_path_token1, 306), (sym_line_comment, 3),
     (anon_sym_LBRACE, 308), (aux_sym_test_pragma_token1, 9), (aux_sym_once_pragma_token1, 11),
     (aux_sym_must_call_pragma_token1, 13), (aux_sym_export_pragma_token1, 15),
     (anon_sym_SEMI, 310), (anon_sym_PERCENT, 312), (aux_sym_fb_decl_token4, 3330),
     (aux_sym_method_decl_token1, 330), (aux_sym_initial_step_token1, 334),
     (aux_sym__stmt_token1, 340), (aux_sym__stmt_token2, 340), (aux_sym__stmt_token3, 340),
     (aux_sym_if_stmt_token1, 342), (aux_sym_case_stmt_token1, 344), (aux_sym_for_stmt_token1, 346),
     (aux_sym_while_stmt_token1, 348), (aux_sym_repeat_stmt_token1, 350),
     (aux_sym_raise_stmt_token1, 352), (aux_sym_try_stmt_token1, 354),
     (aux_sym_try_stmt_token2, 356), (aux_sym_catch_clause_token1, 356),
     (aux_sym_finally_clause_token1, 356), (sym_ld_rung, 358), (sym_fbd_network, 360),
     (sym_c_style_comment, 3), (sym_pascal_style_comment, 3), (sym_pragma, 3)]"

lemma ts_parse_row_1317_scan: "row_scan tokens_63_2 0 ts_parse_row_1317 = Some (Suc (Suc (Suc (Suc 0))))"
  unfolding ts_parse_row_1317_def by simp

text \<open>Lines 197168 to 197252.\<close>

definition ts_parse_row_1318 :: parse_row where
  "ts_parse_row_1318 =
    [(sym_ERR_assign_func_call, 7530), (sym_ERR_unexpected_this_in_path, 2372),
     (sym_ERR_unexpected_super_in_path, 2372), (sym_ERR_method_decl_in_body, 3150),
     (sym_extern_pragma, 7490), (sym_wasm_pragma, 3150), (sym_warn_pragma, 7490),
     (sym_allow_pragma, 3140), (sym_test_pragma, 7490), (sym_once_pragma, 7490),
     (sym_must_call_pragma, 7490), (sym_export_pragma, 7490), (sym_pou_pragma, 7194),
     (sym_direct_variable, 7675), (sym_deref_expression, 2373), (sym_variable, 7599),
     (sym_var_access, 2373), (sym_fb_body, 8809), (sym_method_decl, 3159), (sym_SFC, 7970),
     (sym_SFC_network, 7612), (sym_initial_step, 7439), (sym_variable_access, 7530),
     (sym_func_call, 2961), (sym_stmt_list, 7970), (sym__stmt, 2024), (sym_assign, 3150),
     (sym_if_stmt, 3150), (sym_case_stmt, 3150), (sym_for_stmt, 3150), (sym_while_stmt, 3150),
     (sym_repeat_stmt, 3150), (sym_raise_stmt, 3150), (sym_try_stmt, 3150),
     (sym_ERR_clause_outside_try, 3150), (sym_begin_path_expression, 2943), (sym_invocation, 2934),
     (sym_any_invocation, 2935), (sym_this_invocation, 2641), (sym_super_invocation, 2641),
     (sym_super_body_invocation, 2935), (sym_path_expression, 2627), (sym_field_expression, 2373),
     (sym_index_expression, 2373), (sym_ladder_diagram, 7970), (sym_fb_diagram, 7970),
     (aux_sym_func_decl_repeat1, 7194), (aux_sym_SFC_repeat1, 7612),
     (aux_sym_stmt_list_repeat1, 2024), (aux_sym_ladder_diagram_repeat1, 8009),
     (aux_sym_fb_diagram_repeat1, 8013), (sym_identifier, 298),
     (aux_sym_ERR_unexpected_this_in_path_token1, 304),
     (aux_sym_ERR_unexpected_super_in_path_token1, 306), (sym_line_comment, 3),
     (anon_sym_LBRACE, 308), (aux_sym_test_pragma_token1, 9), (aux_sym_once_pragma_token1, 11),
     (aux_sym_must_call_pragma_token1, 13), (aux_sym_export_pragma_token1, 15),
     (anon_sym_SEMI, 310), (anon_sym_PERCENT, 312), (aux_sym_fb_decl_token4, 3332),
     (aux_sym_method_decl_token1, 330), (aux_sym_initial_step_token1, 334),
     (aux_sym__stmt_token1, 340), (aux_sym__stmt_token2, 340), (aux_sym__stmt_token3, 340),
     (aux_sym_if_stmt_token1, 342), (aux_sym_case_stmt_token1, 344), (aux_sym_for_stmt_token1, 346),
     (aux_sym_while_stmt_token1, 348), (aux_sym_repeat_stmt_token1, 350),
     (aux_sym_raise_stmt_token1, 352), (aux_sym_try_stmt_token1, 354),
     (aux_sym_try_stmt_token2, 356), (aux_sym_catch_clause_token1, 356),
     (aux_sym_finally_clause_token1, 356), (sym_ld_rung, 358), (sym_fbd_network, 360),
     (sym_c_style_comment, 3), (sym_pascal_style_comment, 3), (sym_pragma, 3)]"

lemma ts_parse_row_1318_scan: "row_scan tokens_63_2 0 ts_parse_row_1318 = Some (Suc (Suc (Suc (Suc 0))))"
  unfolding ts_parse_row_1318_def by simp

text \<open>Lines 197253 to 197337.\<close>

definition ts_parse_row_1319 :: parse_row where
  "ts_parse_row_1319 =
    [(sym_ERR_assign_func_call, 7530), (sym_ERR_unexpected_this_in_path, 2372),
     (sym_ERR_unexpected_super_in_path, 2372), (sym_ERR_method_decl_in_body, 3150),
     (sym_extern_pragma, 7490), (sym_wasm_pragma, 3150), (sym_warn_pragma, 7490),
     (sym_allow_pragma, 3140), (sym_test_pragma, 7490), (sym_once_pragma, 7490),
     (sym_must_call_pragma, 7490), (sym_export_pragma, 7490), (sym_pou_pragma, 7194),
     (sym_direct_variable, 7675), (sym_deref_expression, 2373), (sym_variable, 7599),
     (sym_var_access, 2373), (sym_fb_body, 9598), (sym_method_decl, 3159), (sym_SFC, 7970),
     (sym_SFC_network, 7612), (sym_initial_step, 7439), (sym_variable_access, 7530),
     (sym_func_call, 2961), (sym_stmt_list, 7970), (sym__stmt, 2024), (sym_assign, 3150),
     (sym_if_stmt, 3150), (sym_case_stmt, 3150), (sym_for_stmt, 3150), (sym_while_stmt, 3150),
     (sym_repeat_stmt, 3150), (sym_raise_stmt, 3150), (sym_try_stmt, 3150),
     (sym_ERR_clause_outside_try, 3150), (sym_begin_path_expression, 2943), (sym_invocation, 2934),
     (sym_any_invocation, 2935), (sym_this_invocation, 2641), (sym_super_invocation, 2641),
     (sym_super_body_invocation, 2935), (sym_path_expression, 2627), (sym_field_expression, 2373),
     (sym_index_expression, 2373), (sym_ladder_diagram, 7970), (sym_fb_diagram, 7970),
     (aux_sym_func_decl_repeat1, 7194), (aux_sym_SFC_repeat1, 7612),
     (aux_sym_stmt_list_repeat1, 2024), (aux_sym_ladder_diagram_repeat1, 8009),
     (aux_sym_fb_diagram_repeat1, 8013), (sym_identifier, 298),
     (aux_sym_ERR_unexpected_this_in_path_token1, 304),
     (aux_sym_ERR_unexpected_super_in_path_token1, 306), (sym_line_comment, 3),
     (anon_sym_LBRACE, 308), (aux_sym_test_pragma_token1, 9), (aux_sym_once_pragma_token1, 11),
     (aux_sym_must_call_pragma_token1, 13), (aux_sym_export_pragma_token1, 15),
     (anon_sym_SEMI, 310), (anon_sym_PERCENT, 312), (aux_sym_fb_decl_token4, 520),
     (aux_sym_method_decl_token1, 330), (aux_sym_initial_step_token1, 334),
     (aux_sym__stmt_token1, 340), (aux_sym__stmt_token2, 340), (aux_sym__stmt_token3, 340),
     (aux_sym_if_stmt_token1, 342), (aux_sym_case_stmt_token1, 344), (aux_sym_for_stmt_token1, 346),
     (aux_sym_while_stmt_token1, 348), (aux_sym_repeat_stmt_token1, 350),
     (aux_sym_raise_stmt_token1, 352), (aux_sym_try_stmt_token1, 354),
     (aux_sym_try_stmt_token2, 356), (aux_sym_catch_clause_token1, 356),
     (aux_sym_finally_clause_token1, 356), (sym_ld_rung, 358), (sym_fbd_network, 360),
     (sym_c_style_comment, 3), (sym_pascal_style_comment, 3), (sym_pragma, 3)]"

lemma ts_parse_row_1319_scan: "row_scan tokens_63_2 0 ts_parse_row_1319 = Some (Suc (Suc (Suc (Suc 0))))"
  unfolding ts_parse_row_1319_def by simp

text \<open>Lines 197338 to 197422.\<close>

definition ts_parse_row_1320 :: parse_row where
  "ts_parse_row_1320 =
    [(sym_ERR_assign_func_call, 7530), (sym_ERR_unexpected_this_in_path, 2372),
     (sym_ERR_unexpected_super_in_path, 2372), (sym_ERR_method_decl_in_body, 3150),
     (sym_extern_pragma, 7490), (sym_wasm_pragma, 3150), (sym_warn_pragma, 7490),
     (sym_allow_pragma, 3140), (sym_test_pragma, 7490), (sym_once_pragma, 7490),
     (sym_must_call_pragma, 7490), (sym_export_pragma, 7490), (sym_pou_pragma, 7194),
     (sym_direct_variable, 7675), (sym_deref_expression, 2373), (sym_variable, 7599),
     (sym_var_access, 2373), (sym_fb_body, 8823), (sym_method_decl, 3159), (sym_SFC, 7970),
     (sym_SFC_network, 7612), (sym_initial_step, 7439), (sym_variable_access, 7530),
     (sym_func_call, 2961), (sym_stmt_list, 7970), (sym__stmt, 2024), (sym_assign, 3150),
     (sym_if_stmt, 3150), (sym_case_stmt, 3150), (sym_for_stmt, 3150), (sym_while_stmt, 3150),
     (sym_repeat_stmt, 3150), (sym_raise_stmt, 3150), (sym_try_stmt, 3150),
     (sym_ERR_clause_outside_try, 3150), (sym_begin_path_expression, 2943), (sym_invocation, 2934),
     (sym_any_invocation, 2935), (sym_this_invocation, 2641), (sym_super_invocation, 2641),
     (sym_super_body_invocation, 2935), (sym_path_expression, 2627), (sym_field_expression, 2373),
     (sym_index_expression, 2373), (sym_ladder_diagram, 7970), (sym_fb_diagram, 7970),
     (aux_sym_func_decl_repeat1, 7194), (aux_sym_SFC_repeat1, 7612),
     (aux_sym_stmt_list_repeat1, 2024), (aux_sym_ladder_diagram_repeat1, 8009),
     (aux_sym_fb_diagram_repeat1, 8013), (sym_identifier, 298),
     (aux_sym_ERR_unexpected_this_in_path_token1, 304),
     (aux_sym_ERR_unexpected_super_in_path_token1, 306), (sym_line_comment, 3),
     (anon_sym_LBRACE, 308), (aux_sym_test_pragma_token1, 9), (aux_sym_once_pragma_token1, 11),
     (aux_sym_must_call_pragma_token1, 13), (aux_sym_export_pragma_token1, 15),
     (anon_sym_SEMI, 310), (anon_sym_PERCENT, 312), (aux_sym_fb_decl_token4, 586),
     (aux_sym_method_decl_token1, 330), (aux_sym_initial_step_token1, 334),
     (aux_sym__stmt_token1, 340), (aux_sym__stmt_token2, 340), (aux_sym__stmt_token3, 340),
     (aux_sym_if_stmt_token1, 342), (aux_sym_case_stmt_token1, 344), (aux_sym_for_stmt_token1, 346),
     (aux_sym_while_stmt_token1, 348), (aux_sym_repeat_stmt_token1, 350),
     (aux_sym_raise_stmt_token1, 352), (aux_sym_try_stmt_token1, 354),
     (aux_sym_try_stmt_token2, 356), (aux_sym_catch_clause_token1, 356),
     (aux_sym_finally_clause_token1, 356), (sym_ld_rung, 358), (sym_fbd_network, 360),
     (sym_c_style_comment, 3), (sym_pascal_style_comment, 3), (sym_pragma, 3)]"

lemma ts_parse_row_1320_scan: "row_scan tokens_63_2 0 ts_parse_row_1320 = Some (Suc (Suc (Suc (Suc 0))))"
  unfolding ts_parse_row_1320_def by simp

text \<open>Lines 197423 to 197507.\<close>

definition ts_parse_row_1321 :: parse_row where
  "ts_parse_row_1321 =
    [(sym_ERR_assign_func_call, 7530), (sym_ERR_unexpected_this_in_path, 2372),
     (sym_ERR_unexpected_super_in_path, 2372), (sym_ERR_method_decl_in_body, 3150),
     (sym_extern_pragma, 7490), (sym_wasm_pragma, 3150), (sym_warn_pragma, 7490),
     (sym_allow_pragma, 3140), (sym_test_pragma, 7490), (sym_once_pragma, 7490),
     (sym_must_call_pragma, 7490), (sym_export_pragma, 7490), (sym_pou_pragma, 7194),
     (sym_direct_variable, 7675), (sym_deref_expression, 2373), (sym_variable, 7599),
     (sym_var_access, 2373), (sym_fb_body, 9670), (sym_method_decl, 3159), (sym_SFC, 7970),
     (sym_SFC_network, 7612), (sym_initial_step, 7439), (sym_variable_access, 7530),
     (sym_func_call, 2961), (sym_stmt_list, 7970), (sym__stmt, 2024), (sym_assign, 3150),
     (sym_if_stmt, 3150), (sym_case_stmt, 3150), (sym_for_stmt, 3150), (sym_while_stmt, 3150),
     (sym_repeat_stmt, 3150), (sym_raise_stmt, 3150), (sym_try_stmt, 3150),
     (sym_ERR_clause_outside_try, 3150), (sym_begin_path_expression, 2943), (sym_invocation, 2934),
     (sym_any_invocation, 2935), (sym_this_invocation, 2641), (sym_super_invocation, 2641),
     (sym_super_body_invocation, 2935), (sym_path_expression, 2627), (sym_field_expression, 2373),
     (sym_index_expression, 2373), (sym_ladder_diagram, 7970), (sym_fb_diagram, 7970),
     (aux_sym_func_decl_repeat1, 7194), (aux_sym_SFC_repeat1, 7612),
     (aux_sym_stmt_list_repeat1, 2024), (aux_sym_ladder_diagram_repeat1, 8009),
     (aux_sym_fb_diagram_repeat1, 8013), (sym_identifier, 298),
     (aux_sym_ERR_unexpected_this_in_path_token1, 304),
     (aux_sym_ERR_unexpected_super_in_path_token1, 306), (sym_line_comment, 3),
     (anon_sym_LBRACE, 308), (aux_sym_test_pragma_token1, 9), (aux_sym_once_pragma_token1, 11),
     (aux_sym_must_call_pragma_token1, 13), (aux_sym_export_pragma_token1, 15),
     (anon_sym_SEMI, 310), (anon_sym_PERCENT, 312), (aux_sym_fb_decl_token4, 3334),
     (aux_sym_method_decl_token1, 330), (aux_sym_initial_step_token1, 334),
     (aux_sym__stmt_token1, 340), (aux_sym__stmt_token2, 340), (aux_sym__stmt_token3, 340),
     (aux_sym_if_stmt_token1, 342), (aux_sym_case_stmt_token1, 344), (aux_sym_for_stmt_token1, 346),
     (aux_sym_while_stmt_token1, 348), (aux_sym_repeat_stmt_token1, 350),
     (aux_sym_raise_stmt_token1, 352), (aux_sym_try_stmt_token1, 354),
     (aux_sym_try_stmt_token2, 356), (aux_sym_catch_clause_token1, 356),
     (aux_sym_finally_clause_token1, 356), (sym_ld_rung, 358), (sym_fbd_network, 360),
     (sym_c_style_comment, 3), (sym_pascal_style_comment, 3), (sym_pragma, 3)]"

lemma ts_parse_row_1321_scan: "row_scan tokens_63_2 0 ts_parse_row_1321 = Some (Suc (Suc (Suc (Suc 0))))"
  unfolding ts_parse_row_1321_def by simp

text \<open>Lines 197508 to 197592.\<close>

definition ts_parse_row_1322 :: parse_row where
  "ts_parse_row_1322 =
    [(sym_ERR_assign_func_call, 7530), (sym_ERR_unexpected_this_in_path, 2372),
     (sym_ERR_unexpected_super_in_path, 2372), (sym_ERR_method_decl_in_body, 3150),
     (sym_extern_pragma, 7490), (sym_wasm_pragma, 3150), (sym_warn_pragma, 7490),
     (sym_allow_pragma, 3140), (sym_test_pragma, 7490), (sym_once_pragma, 7490),
     (sym_must_call_pragma, 7490), (sym_export_pragma, 7490), (sym_pou_pragma, 7194),
     (sym_direct_variable, 7675), (sym_deref_expression, 2373), (sym_variable, 7599),
     (sym_var_access, 2373), (sym_fb_body, 8849), (sym_method_decl, 3159), (sym_SFC, 7970),
     (sym_SFC_network, 7612), (sym_initial_step, 7439), (sym_variable_access, 7530),
     (sym_func_call, 2961), (sym_stmt_list, 7970), (sym__stmt, 2024), (sym_assign, 3150),
     (sym_if_stmt, 3150), (sym_case_stmt, 3150), (sym_for_stmt, 3150), (sym_while_stmt, 3150),
     (sym_repeat_stmt, 3150), (sym_raise_stmt, 3150), (sym_try_stmt, 3150),
     (sym_ERR_clause_outside_try, 3150), (sym_begin_path_expression, 2943), (sym_invocation, 2934),
     (sym_any_invocation, 2935), (sym_this_invocation, 2641), (sym_super_invocation, 2641),
     (sym_super_body_invocation, 2935), (sym_path_expression, 2627), (sym_field_expression, 2373),
     (sym_index_expression, 2373), (sym_ladder_diagram, 7970), (sym_fb_diagram, 7970),
     (aux_sym_func_decl_repeat1, 7194), (aux_sym_SFC_repeat1, 7612),
     (aux_sym_stmt_list_repeat1, 2024), (aux_sym_ladder_diagram_repeat1, 8009),
     (aux_sym_fb_diagram_repeat1, 8013), (sym_identifier, 298),
     (aux_sym_ERR_unexpected_this_in_path_token1, 304),
     (aux_sym_ERR_unexpected_super_in_path_token1, 306), (sym_line_comment, 3),
     (anon_sym_LBRACE, 308), (aux_sym_test_pragma_token1, 9), (aux_sym_once_pragma_token1, 11),
     (aux_sym_must_call_pragma_token1, 13), (aux_sym_export_pragma_token1, 15),
     (anon_sym_SEMI, 310), (anon_sym_PERCENT, 312), (aux_sym_fb_decl_token4, 3336),
     (aux_sym_method_decl_token1, 330), (aux_sym_initial_step_token1, 334),
     (aux_sym__stmt_token1, 340), (aux_sym__stmt_token2, 340), (aux_sym__stmt_token3, 340),
     (aux_sym_if_stmt_token1, 342), (aux_sym_case_stmt_token1, 344), (aux_sym_for_stmt_token1, 346),
     (aux_sym_while_stmt_token1, 348), (aux_sym_repeat_stmt_token1, 350),
     (aux_sym_raise_stmt_token1, 352), (aux_sym_try_stmt_token1, 354),
     (aux_sym_try_stmt_token2, 356), (aux_sym_catch_clause_token1, 356),
     (aux_sym_finally_clause_token1, 356), (sym_ld_rung, 358), (sym_fbd_network, 360),
     (sym_c_style_comment, 3), (sym_pascal_style_comment, 3), (sym_pragma, 3)]"

lemma ts_parse_row_1322_scan: "row_scan tokens_63_2 0 ts_parse_row_1322 = Some (Suc (Suc (Suc (Suc 0))))"
  unfolding ts_parse_row_1322_def by simp

text \<open>Lines 197593 to 197677.\<close>

definition ts_parse_row_1323 :: parse_row where
  "ts_parse_row_1323 =
    [(sym_ERR_assign_func_call, 7530), (sym_ERR_unexpected_this_in_path, 2372),
     (sym_ERR_unexpected_super_in_path, 2372), (sym_ERR_method_decl_in_body, 3150),
     (sym_extern_pragma, 7490), (sym_wasm_pragma, 3150), (sym_warn_pragma, 7490),
     (sym_allow_pragma, 3140), (sym_test_pragma, 7490), (sym_once_pragma, 7490),
     (sym_must_call_pragma, 7490), (sym_export_pragma, 7490), (sym_pou_pragma, 7194),
     (sym_direct_variable, 7675), (sym_deref_expression, 2373), (sym_variable, 7599),
     (sym_var_access, 2373), (sym_fb_body, 8856), (sym_method_decl, 3159), (sym_SFC, 7970),
     (sym_SFC_network, 7612), (sym_initial_step, 7439), (sym_variable_access, 7530),
     (sym_func_call, 2961), (sym_stmt_list, 7970), (sym__stmt, 2024), (sym_assign, 3150),
     (sym_if_stmt, 3150), (sym_case_stmt, 3150), (sym_for_stmt, 3150), (sym_while_stmt, 3150),
     (sym_repeat_stmt, 3150), (sym_raise_stmt, 3150), (sym_try_stmt, 3150),
     (sym_ERR_clause_outside_try, 3150), (sym_begin_path_expression, 2943), (sym_invocation, 2934),
     (sym_any_invocation, 2935), (sym_this_invocation, 2641), (sym_super_invocation, 2641),
     (sym_super_body_invocation, 2935), (sym_path_expression, 2627), (sym_field_expression, 2373),
     (sym_index_expression, 2373), (sym_ladder_diagram, 7970), (sym_fb_diagram, 7970),
     (aux_sym_func_decl_repeat1, 7194), (aux_sym_SFC_repeat1, 7612),
     (aux_sym_stmt_list_repeat1, 2024), (aux_sym_ladder_diagram_repeat1, 8009),
     (aux_sym_fb_diagram_repeat1, 8013), (sym_identifier, 298),
     (aux_sym_ERR_unexpected_this_in_path_token1, 304),
     (aux_sym_ERR_unexpected_super_in_path_token1, 306), (sym_line_comment, 3),
     (anon_sym_LBRACE, 308), (aux_sym_test_pragma_token1, 9), (aux_sym_once_pragma_token1, 11),
     (aux_sym_must_call_pragma_token1, 13), (aux_sym_export_pragma_token1, 15),
     (anon_sym_SEMI, 310), (anon_sym_PERCENT, 312), (aux_sym_fb_decl_token4, 3338),
     (aux_sym_method_decl_token1, 330), (aux_sym_initial_step_token1, 334),
     (aux_sym__stmt_token1, 340), (aux_sym__stmt_token2, 340), (aux_sym__stmt_token3, 340),
     (aux_sym_if_stmt_token1, 342), (aux_sym_case_stmt_token1, 344), (aux_sym_for_stmt_token1, 346),
     (aux_sym_while_stmt_token1, 348), (aux_sym_repeat_stmt_token1, 350),
     (aux_sym_raise_stmt_token1, 352), (aux_sym_try_stmt_token1, 354),
     (aux_sym_try_stmt_token2, 356), (aux_sym_catch_clause_token1, 356),
     (aux_sym_finally_clause_token1, 356), (sym_ld_rung, 358), (sym_fbd_network, 360),
     (sym_c_style_comment, 3), (sym_pascal_style_comment, 3), (sym_pragma, 3)]"

lemma ts_parse_row_1323_scan: "row_scan tokens_63_2 0 ts_parse_row_1323 = Some (Suc (Suc (Suc (Suc 0))))"
  unfolding ts_parse_row_1323_def by simp

text \<open>Lines 197678 to 197762.\<close>

definition ts_parse_row_1324 :: parse_row where
  "ts_parse_row_1324 =
    [(sym_ERR_assign_func_call, 7530), (sym_ERR_unexpected_this_in_path, 2372),
     (sym_ERR_unexpected_super_in_path, 2372), (sym_ERR_method_decl_in_body, 3150),
     (sym_extern_pragma, 7490), (sym_wasm_pragma, 3150), (sym_warn_pragma, 7490),
     (sym_allow_pragma, 3140), (sym_test_pragma, 7490), (sym_once_pragma, 7490),
     (sym_must_call_pragma, 7490), (sym_export_pragma, 7490), (sym_pou_pragma, 7194),
     (sym_direct_variable, 7675), (sym_deref_expression, 2373), (sym_variable, 7599),
     (sym_var_access, 2373), (sym_fb_body, 8861), (sym_method_decl, 3159), (sym_SFC, 7970),
     (sym_SFC_network, 7612), (sym_initial_step, 7439), (sym_variable_access, 7530),
     (sym_func_call, 2961), (sym_stmt_list, 7970), (sym__stmt, 2024), (sym_assign, 3150),
     (sym_if_stmt, 3150), (sym_case_stmt, 3150), (sym_for_stmt, 3150), (sym_while_stmt, 3150),
     (sym_repeat_stmt, 3150), (sym_raise_stmt, 3150), (sym_try_stmt, 3150),
     (sym_ERR_clause_outside_try, 3150), (sym_begin_path_expression, 2943), (sym_invocation, 2934),
     (sym_any_invocation, 2935), (sym_this_invocation, 2641), (sym_super_invocation, 2641),
     (sym_super_body_invocation, 2935), (sym_path_expression, 2627), (sym_field_expression, 2373),
     (sym_index_expression, 2373), (sym_ladder_diagram, 7970), (sym_fb_diagram, 7970),
     (aux_sym_func_decl_repeat1, 7194), (aux_sym_SFC_repeat1, 7612),
     (aux_sym_stmt_list_repeat1, 2024), (aux_sym_ladder_diagram_repeat1, 8009),
     (aux_sym_fb_diagram_repeat1, 8013), (sym_identifier, 298),
     (aux_sym_ERR_unexpected_this_in_path_token1, 304),
     (aux_sym_ERR_unexpected_super_in_path_token1, 306), (sym_line_comment, 3),
     (anon_sym_LBRACE, 308), (aux_sym_test_pragma_token1, 9), (aux_sym_once_pragma_token1, 11),
     (aux_sym_must_call_pragma_token1, 13), (aux_sym_export_pragma_token1, 15),
     (anon_sym_SEMI, 310), (anon_sym_PERCENT, 312), (aux_sym_fb_decl_token4, 588),
     (aux_sym_method_decl_token1, 330), (aux_sym_initial_step_token1, 334),
     (aux_sym__stmt_token1, 340), (aux_sym__stmt_token2, 340), (aux_sym__stmt_token3, 340),
     (aux_sym_if_stmt_token1, 342), (aux_sym_case_stmt_token1, 344), (aux_sym_for_stmt_token1, 346),
     (aux_sym_while_stmt_token1, 348), (aux_sym_repeat_stmt_token1, 350),
     (aux_sym_raise_stmt_token1, 352), (aux_sym_try_stmt_token1, 354),
     (aux_sym_try_stmt_token2, 356), (aux_sym_catch_clause_token1, 356),
     (aux_sym_finally_clause_token1, 356), (sym_ld_rung, 358), (sym_fbd_network, 360),
     (sym_c_style_comment, 3), (sym_pascal_style_comment, 3), (sym_pragma, 3)]"

lemma ts_parse_row_1324_scan: "row_scan tokens_63_2 0 ts_parse_row_1324 = Some (Suc (Suc (Suc (Suc 0))))"
  unfolding ts_parse_row_1324_def by simp

text \<open>Lines 197763 to 197847.\<close>

definition ts_parse_row_1325 :: parse_row where
  "ts_parse_row_1325 =
    [(sym_ERR_assign_func_call, 7530), (sym_ERR_unexpected_this_in_path, 2372),
     (sym_ERR_unexpected_super_in_path, 2372), (sym_ERR_method_decl_in_body, 3150),
     (sym_extern_pragma, 7490), (sym_wasm_pragma, 3150), (sym_warn_pragma, 7490),
     (sym_allow_pragma, 3140), (sym_test_pragma, 7490), (sym_once_pragma, 7490),
     (sym_must_call_pragma, 7490), (sym_export_pragma, 7490), (sym_pou_pragma, 7194),
     (sym_direct_variable, 7675), (sym_deref_expression, 2373), (sym_variable, 7599),
     (sym_var_access, 2373), (sym_fb_body, 9679), (sym_method_decl, 3159), (sym_SFC, 7970),
     (sym_SFC_network, 7612), (sym_initial_step, 7439), (sym_variable_access, 7530),
     (sym_func_call, 2961), (sym_stmt_list, 7970), (sym__stmt, 2024), (sym_assign, 3150),
     (sym_if_stmt, 3150), (sym_case_stmt, 3150), (sym_for_stmt, 3150), (sym_while_stmt, 3150),
     (sym_repeat_stmt, 3150), (sym_raise_stmt, 3150), (sym_try_stmt, 3150),
     (sym_ERR_clause_outside_try, 3150), (sym_begin_path_expression, 2943), (sym_invocation, 2934),
     (sym_any_invocation, 2935), (sym_this_invocation, 2641), (sym_super_invocation, 2641),
     (sym_super_body_invocation, 2935), (sym_path_expression, 2627), (sym_field_expression, 2373),
     (sym_index_expression, 2373), (sym_ladder_diagram, 7970), (sym_fb_diagram, 7970),
     (aux_sym_func_decl_repeat1, 7194), (aux_sym_SFC_repeat1, 7612),
     (aux_sym_stmt_list_repeat1, 2024), (aux_sym_ladder_diagram_repeat1, 8009),
     (aux_sym_fb_diagram_repeat1, 8013), (sym_identifier, 298),
     (aux_sym_ERR_unexpected_this_in_path_token1, 304),
     (aux_sym_ERR_unexpected_super_in_path_token1, 306), (sym_line_comment, 3),
     (anon_sym_LBRACE, 308), (aux_sym_test_pragma_token1, 9), (aux_sym_once_pragma_token1, 11),
     (aux_sym_must_call_pragma_token1, 13), (aux_sym_export_pragma_token1, 15),
     (anon_sym_SEMI, 310), (anon_sym_PERCENT, 312), (aux_sym_fb_decl_token4, 3340),
     (aux_sym_method_decl_token1, 330), (aux_sym_initial_step_token1, 334),
     (aux_sym__stmt_token1, 340), (aux_sym__stmt_token2, 340), (aux_sym__stmt_token3, 340),
     (aux_sym_if_stmt_token1, 342), (aux_sym_case_stmt_token1, 344), (aux_sym_for_stmt_token1, 346),
     (aux_sym_while_stmt_token1, 348), (aux_sym_repeat_stmt_token1, 350),
     (aux_sym_raise_stmt_token1, 352), (aux_sym_try_stmt_token1, 354),
     (aux_sym_try_stmt_token2, 356), (aux_sym_catch_clause_token1, 356),
     (aux_sym_finally_clause_token1, 356), (sym_ld_rung, 358), (sym_fbd_network, 360),
     (sym_c_style_comment, 3), (sym_pascal_style_comment, 3), (sym_pragma, 3)]"

lemma ts_parse_row_1325_scan: "row_scan tokens_63_2 0 ts_parse_row_1325 = Some (Suc (Suc (Suc (Suc 0))))"
  unfolding ts_parse_row_1325_def by simp

text \<open>Lines 197848 to 197932.\<close>

definition ts_parse_row_1326 :: parse_row where
  "ts_parse_row_1326 =
    [(sym_ERR_assign_func_call, 7530), (sym_ERR_unexpected_this_in_path, 2372),
     (sym_ERR_unexpected_super_in_path, 2372), (sym_ERR_method_decl_in_body, 3150),
     (sym_extern_pragma, 7490), (sym_wasm_pragma, 3150), (sym_warn_pragma, 7490),
     (sym_allow_pragma, 3140), (sym_test_pragma, 7490), (sym_once_pragma, 7490),
     (sym_must_call_pragma, 7490), (sym_export_pragma, 7490), (sym_pou_pragma, 7194),
     (sym_direct_variable, 7675), (sym_deref_expression, 2373), (sym_variable, 7599),
     (sym_var_access, 2373), (sym_fb_body, 9690), (sym_method_decl, 3159), (sym_SFC, 7970),
     (sym_SFC_network, 7612), (sym_initial_step, 7439), (sym_variable_access, 7530),
     (sym_func_call, 2961), (sym_stmt_list, 7970), (sym__stmt, 2024), (sym_assign, 3150),
     (sym_if_stmt, 3150), (sym_case_stmt, 3150), (sym_for_stmt, 3150), (sym_while_stmt, 3150),
     (sym_repeat_stmt, 3150), (sym_raise_stmt, 3150), (sym_try_stmt, 3150),
     (sym_ERR_clause_outside_try, 3150), (sym_begin_path_expression, 2943), (sym_invocation, 2934),
     (sym_any_invocation, 2935), (sym_this_invocation, 2641), (sym_super_invocation, 2641),
     (sym_super_body_invocation, 2935), (sym_path_expression, 2627), (sym_field_expression, 2373),
     (sym_index_expression, 2373), (sym_ladder_diagram, 7970), (sym_fb_diagram, 7970),
     (aux_sym_func_decl_repeat1, 7194), (aux_sym_SFC_repeat1, 7612),
     (aux_sym_stmt_list_repeat1, 2024), (aux_sym_ladder_diagram_repeat1, 8009),
     (aux_sym_fb_diagram_repeat1, 8013), (sym_identifier, 298),
     (aux_sym_ERR_unexpected_this_in_path_token1, 304),
     (aux_sym_ERR_unexpected_super_in_path_token1, 306), (sym_line_comment, 3),
     (anon_sym_LBRACE, 308), (aux_sym_test_pragma_token1, 9), (aux_sym_once_pragma_token1, 11),
     (aux_sym_must_call_pragma_token1, 13), (aux_sym_export_pragma_token1, 15),
     (anon_sym_SEMI, 310), (anon_sym_PERCENT, 312), (aux_sym_fb_decl_token4, 3342),
     (aux_sym_method_decl_token1, 330), (aux_sym_initial_step_token1, 334),
     (aux_sym__stmt_token1, 340), (aux_sym__stmt_token2, 340), (aux_sym__stmt_token3, 340),
     (aux_sym_if_stmt_token1, 342), (aux_sym_case_stmt_token1, 344), (aux_sym_for_stmt_token1, 346),
     (aux_sym_while_stmt_token1, 348), (aux_sym_repeat_stmt_token1, 350),
     (aux_sym_raise_stmt_token1, 352), (aux_sym_try_stmt_token1, 354),
     (aux_sym_try_stmt_token2, 356), (aux_sym_catch_clause_token1, 356),
     (aux_sym_finally_clause_token1, 356), (sym_ld_rung, 358), (sym_fbd_network, 360),
     (sym_c_style_comment, 3), (sym_pascal_style_comment, 3), (sym_pragma, 3)]"

lemma ts_parse_row_1326_scan: "row_scan tokens_63_2 0 ts_parse_row_1326 = Some (Suc (Suc (Suc (Suc 0))))"
  unfolding ts_parse_row_1326_def by simp

text \<open>Lines 197933 to 198017.\<close>

definition ts_parse_row_1327 :: parse_row where
  "ts_parse_row_1327 =
    [(sym_ERR_assign_func_call, 7530), (sym_ERR_unexpected_this_in_path, 2372),
     (sym_ERR_unexpected_super_in_path, 2372), (sym_ERR_method_decl_in_body, 3150),
     (sym_extern_pragma, 7490), (sym_wasm_pragma, 3150), (sym_warn_pragma, 7490),
     (sym_allow_pragma, 3140), (sym_test_pragma, 7490), (sym_once_pragma, 7490),
     (sym_must_call_pragma, 7490), (sym_export_pragma, 7490), (sym_pou_pragma, 7194),
     (sym_direct_variable, 7675), (sym_deref_expression, 2373), (sym_variable, 7599),
     (sym_var_access, 2373), (sym_fb_body, 9697), (sym_method_decl, 3159), (sym_SFC, 7970),
     (sym_SFC_network, 7612), (sym_initial_step, 7439), (sym_variable_access, 7530),
     (sym_func_call, 2961), (sym_stmt_list, 7970), (sym__stmt, 2024), (sym_assign, 3150),
     (sym_if_stmt, 3150), (sym_case_stmt, 3150), (sym_for_stmt, 3150), (sym_while_stmt, 3150),
     (sym_repeat_stmt, 3150), (sym_raise_stmt, 3150), (sym_try_stmt, 3150),
     (sym_ERR_clause_outside_try, 3150), (sym_begin_path_expression, 2943), (sym_invocation, 2934),
     (sym_any_invocation, 2935), (sym_this_invocation, 2641), (sym_super_invocation, 2641),
     (sym_super_body_invocation, 2935), (sym_path_expression, 2627), (sym_field_expression, 2373),
     (sym_index_expression, 2373), (sym_ladder_diagram, 7970), (sym_fb_diagram, 7970),
     (aux_sym_func_decl_repeat1, 7194), (aux_sym_SFC_repeat1, 7612),
     (aux_sym_stmt_list_repeat1, 2024), (aux_sym_ladder_diagram_repeat1, 8009),
     (aux_sym_fb_diagram_repeat1, 8013), (sym_identifier, 298),
     (aux_sym_ERR_unexpected_this_in_path_token1, 304),
     (aux_sym_ERR_unexpected_super_in_path_token1, 306), (sym_line_comment, 3),
     (anon_sym_LBRACE, 308), (aux_sym_test_pragma_token1, 9), (aux_sym_once_pragma_token1, 11),
     (aux_sym_must_call_pragma_token1, 13), (aux_sym_export_pragma_token1, 15),
     (anon_sym_SEMI, 310), (anon_sym_PERCENT, 312), (aux_sym_fb_decl_token4, 3344),
     (aux_sym_method_decl_token1, 330), (aux_sym_initial_step_token1, 334),
     (aux_sym__stmt_token1, 340), (aux_sym__stmt_token2, 340), (aux_sym__stmt_token3, 340),
     (aux_sym_if_stmt_token1, 342), (aux_sym_case_stmt_token1, 344), (aux_sym_for_stmt_token1, 346),
     (aux_sym_while_stmt_token1, 348), (aux_sym_repeat_stmt_token1, 350),
     (aux_sym_raise_stmt_token1, 352), (aux_sym_try_stmt_token1, 354),
     (aux_sym_try_stmt_token2, 356), (aux_sym_catch_clause_token1, 356),
     (aux_sym_finally_clause_token1, 356), (sym_ld_rung, 358), (sym_fbd_network, 360),
     (sym_c_style_comment, 3), (sym_pascal_style_comment, 3), (sym_pragma, 3)]"

lemma ts_parse_row_1327_scan: "row_scan tokens_63_2 0 ts_parse_row_1327 = Some (Suc (Suc (Suc (Suc 0))))"
  unfolding ts_parse_row_1327_def by simp

text \<open>Lines 198018 to 198102.\<close>

definition ts_parse_row_1328 :: parse_row where
  "ts_parse_row_1328 =
    [(sym_ERR_assign_func_call, 7530), (sym_ERR_unexpected_this_in_path, 2372),
     (sym_ERR_unexpected_super_in_path, 2372), (sym_ERR_method_decl_in_body, 3150),
     (sym_extern_pragma, 7490), (sym_wasm_pragma, 3150), (sym_warn_pragma, 7490),
     (sym_allow_pragma, 3140), (sym_test_pragma, 7490), (sym_once_pragma, 7490),
     (sym_must_call_pragma, 7490), (sym_export_pragma, 7490), (sym_pou_pragma, 7194),
     (sym_direct_variable, 7675), (sym_deref_expression, 2373), (sym_variable, 7599),
     (sym_var_access, 2373), (sym_fb_body, 8887), (sym_method_decl, 3159), (sym_SFC, 7970),
     (sym_SFC_network, 7612), (sym_initial_step, 7439), (sym_variable_access, 7530),
     (sym_func_call, 2961), (sym_stmt_list, 7970), (sym__stmt, 2024), (sym_assign, 3150),
     (sym_if_stmt, 3150), (sym_case_stmt, 3150), (sym_for_stmt, 3150), (sym_while_stmt, 3150),
     (sym_repeat_stmt, 3150), (sym_raise_stmt, 3150), (sym_try_stmt, 3150),
     (sym_ERR_clause_outside_try, 3150), (sym_begin_path_expression, 2943), (sym_invocation, 2934),
     (sym_any_invocation, 2935), (sym_this_invocation, 2641), (sym_super_invocation, 2641),
     (sym_super_body_invocation, 2935), (sym_path_expression, 2627), (sym_field_expression, 2373),
     (sym_index_expression, 2373), (sym_ladder_diagram, 7970), (sym_fb_diagram, 7970),
     (aux_sym_func_decl_repeat1, 7194), (aux_sym_SFC_repeat1, 7612),
     (aux_sym_stmt_list_repeat1, 2024), (aux_sym_ladder_diagram_repeat1, 8009),
     (aux_sym_fb_diagram_repeat1, 8013), (sym_identifier, 298),
     (aux_sym_ERR_unexpected_this_in_path_token1, 304),
     (aux_sym_ERR_unexpected_super_in_path_token1, 306), (sym_line_comment, 3),
     (anon_sym_LBRACE, 308), (aux_sym_test_pragma_token1, 9), (aux_sym_once_pragma_token1, 11),
     (aux_sym_must_call_pragma_token1, 13), (aux_sym_export_pragma_token1, 15),
     (anon_sym_SEMI, 310), (anon_sym_PERCENT, 312), (aux_sym_fb_decl_token4, 3346),
     (aux_sym_method_decl_token1, 330), (aux_sym_initial_step_token1, 334),
     (aux_sym__stmt_token1, 340), (aux_sym__stmt_token2, 340), (aux_sym__stmt_token3, 340),
     (aux_sym_if_stmt_token1, 342), (aux_sym_case_stmt_token1, 344), (aux_sym_for_stmt_token1, 346),
     (aux_sym_while_stmt_token1, 348), (aux_sym_repeat_stmt_token1, 350),
     (aux_sym_raise_stmt_token1, 352), (aux_sym_try_stmt_token1, 354),
     (aux_sym_try_stmt_token2, 356), (aux_sym_catch_clause_token1, 356),
     (aux_sym_finally_clause_token1, 356), (sym_ld_rung, 358), (sym_fbd_network, 360),
     (sym_c_style_comment, 3), (sym_pascal_style_comment, 3), (sym_pragma, 3)]"

lemma ts_parse_row_1328_scan: "row_scan tokens_63_2 0 ts_parse_row_1328 = Some (Suc (Suc (Suc (Suc 0))))"
  unfolding ts_parse_row_1328_def by simp

text \<open>Lines 198103 to 198187.\<close>

definition ts_parse_row_1329 :: parse_row where
  "ts_parse_row_1329 =
    [(sym_ERR_assign_func_call, 7530), (sym_ERR_unexpected_this_in_path, 2372),
     (sym_ERR_unexpected_super_in_path, 2372), (sym_ERR_method_decl_in_body, 3150),
     (sym_extern_pragma, 7490), (sym_wasm_pragma, 3150), (sym_warn_pragma, 7490),
     (sym_allow_pragma, 3140), (sym_test_pragma, 7490), (sym_once_pragma, 7490),
     (sym_must_call_pragma, 7490), (sym_export_pragma, 7490), (sym_pou_pragma, 7194),
     (sym_direct_variable, 7675), (sym_deref_expression, 2373), (sym_variable, 7599),
     (sym_var_access, 2373), (sym_fb_body, 8893), (sym_method_decl, 3159), (sym_SFC, 7970),
     (sym_SFC_network, 7612), (sym_initial_step, 7439), (sym_variable_access, 7530),
     (sym_func_call, 2961), (sym_stmt_list, 7970), (sym__stmt, 2024), (sym_assign, 3150),
     (sym_if_stmt, 3150), (sym_case_stmt, 3150), (sym_for_stmt, 3150), (sym_while_stmt, 3150),
     (sym_repeat_stmt, 3150), (sym_raise_stmt, 3150), (sym_try_stmt, 3150),
     (sym_ERR_clause_outside_try, 3150), (sym_begin_path_expression, 2943), (sym_invocation, 2934),
     (sym_any_invocation, 2935), (sym_this_invocation, 2641), (sym_super_invocation, 2641),
     (sym_super_body_invocation, 2935), (sym_path_expression, 2627), (sym_field_expression, 2373),
     (sym_index_expression, 2373), (sym_ladder_diagram, 7970), (sym_fb_diagram, 7970),
     (aux_sym_func_decl_repeat1, 7194), (aux_sym_SFC_repeat1, 7612),
     (aux_sym_stmt_list_repeat1, 2024), (aux_sym_ladder_diagram_repeat1, 8009),
     (aux_sym_fb_diagram_repeat1, 8013), (sym_identifier, 298),
     (aux_sym_ERR_unexpected_this_in_path_token1, 304),
     (aux_sym_ERR_unexpected_super_in_path_token1, 306), (sym_line_comment, 3),
     (anon_sym_LBRACE, 308), (aux_sym_test_pragma_token1, 9), (aux_sym_once_pragma_token1, 11),
     (aux_sym_must_call_pragma_token1, 13), (aux_sym_export_pragma_token1, 15),
     (anon_sym_SEMI, 310), (anon_sym_PERCENT, 312), (aux_sym_fb_decl_token4, 3348),
     (aux_sym_method_decl_token1, 330), (aux_sym_initial_step_token1, 334),
     (aux_sym__stmt_token1, 340), (aux_sym__stmt_token2, 340), (aux_sym__stmt_token3, 340),
     (aux_sym_if_stmt_token1, 342), (aux_sym_case_stmt_token1, 344), (aux_sym_for_stmt_token1, 346),
     (aux_sym_while_stmt_token1, 348), (aux_sym_repeat_stmt_token1, 350),
     (aux_sym_raise_stmt_token1, 352), (aux_sym_try_stmt_token1, 354),
     (aux_sym_try_stmt_token2, 356), (aux_sym_catch_clause_token1, 356),
     (aux_sym_finally_clause_token1, 356), (sym_ld_rung, 358), (sym_fbd_network, 360),
     (sym_c_style_comment, 3), (sym_pascal_style_comment, 3), (sym_pragma, 3)]"

lemma ts_parse_row_1329_scan: "row_scan tokens_63_2 0 ts_parse_row_1329 = Some (Suc (Suc (Suc (Suc 0))))"
  unfolding ts_parse_row_1329_def by simp

text \<open>Lines 198188 to 198272.\<close>

definition ts_parse_row_1330 :: parse_row where
  "ts_parse_row_1330 =
    [(sym_ERR_assign_func_call, 7530), (sym_ERR_unexpected_this_in_path, 2372),
     (sym_ERR_unexpected_super_in_path, 2372), (sym_ERR_method_decl_in_body, 3150),
     (sym_extern_pragma, 7490), (sym_wasm_pragma, 3150), (sym_warn_pragma, 7490),
     (sym_allow_pragma, 3140), (sym_test_pragma, 7490), (sym_once_pragma, 7490),
     (sym_must_call_pragma, 7490), (sym_export_pragma, 7490), (sym_pou_pragma, 7194),
     (sym_direct_variable, 7675), (sym_deref_expression, 2373), (sym_variable, 7599),
     (sym_var_access, 2373), (sym_fb_body, 8900), (sym_method_decl, 3159), (sym_SFC, 7970),
     (sym_SFC_network, 7612), (sym_initial_step, 7439), (sym_variable_access, 7530),
     (sym_func_call, 2961), (sym_stmt_list, 7970), (sym__stmt, 2024), (sym_assign, 3150),
     (sym_if_stmt, 3150), (sym_case_stmt, 3150), (sym_for_stmt, 3150), (sym_while_stmt, 3150),
     (sym_repeat_stmt, 3150), (sym_raise_stmt, 3150), (sym_try_stmt, 3150),
     (sym_ERR_clause_outside_try, 3150), (sym_begin_path_expression, 2943), (sym_invocation, 2934),
     (sym_any_invocation, 2935), (sym_this_invocation, 2641), (sym_super_invocation, 2641),
     (sym_super_body_invocation, 2935), (sym_path_expression, 2627), (sym_field_expression, 2373),
     (sym_index_expression, 2373), (sym_ladder_diagram, 7970), (sym_fb_diagram, 7970),
     (aux_sym_func_decl_repeat1, 7194), (aux_sym_SFC_repeat1, 7612),
     (aux_sym_stmt_list_repeat1, 2024), (aux_sym_ladder_diagram_repeat1, 8009),
     (aux_sym_fb_diagram_repeat1, 8013), (sym_identifier, 298),
     (aux_sym_ERR_unexpected_this_in_path_token1, 304),
     (aux_sym_ERR_unexpected_super_in_path_token1, 306), (sym_line_comment, 3),
     (anon_sym_LBRACE, 308), (aux_sym_test_pragma_token1, 9), (aux_sym_once_pragma_token1, 11),
     (aux_sym_must_call_pragma_token1, 13), (aux_sym_export_pragma_token1, 15),
     (anon_sym_SEMI, 310), (anon_sym_PERCENT, 312), (aux_sym_fb_decl_token4, 3350),
     (aux_sym_method_decl_token1, 330), (aux_sym_initial_step_token1, 334),
     (aux_sym__stmt_token1, 340), (aux_sym__stmt_token2, 340), (aux_sym__stmt_token3, 340),
     (aux_sym_if_stmt_token1, 342), (aux_sym_case_stmt_token1, 344), (aux_sym_for_stmt_token1, 346),
     (aux_sym_while_stmt_token1, 348), (aux_sym_repeat_stmt_token1, 350),
     (aux_sym_raise_stmt_token1, 352), (aux_sym_try_stmt_token1, 354),
     (aux_sym_try_stmt_token2, 356), (aux_sym_catch_clause_token1, 356),
     (aux_sym_finally_clause_token1, 356), (sym_ld_rung, 358), (sym_fbd_network, 360),
     (sym_c_style_comment, 3), (sym_pascal_style_comment, 3), (sym_pragma, 3)]"

lemma ts_parse_row_1330_scan: "row_scan tokens_63_2 0 ts_parse_row_1330 = Some (Suc (Suc (Suc (Suc 0))))"
  unfolding ts_parse_row_1330_def by simp

text \<open>Lines 198273 to 198357.\<close>

definition ts_parse_row_1331 :: parse_row where
  "ts_parse_row_1331 =
    [(sym_ERR_assign_func_call, 7530), (sym_ERR_unexpected_this_in_path, 2372),
     (sym_ERR_unexpected_super_in_path, 2372), (sym_ERR_method_decl_in_body, 3150),
     (sym_extern_pragma, 7490), (sym_wasm_pragma, 3150), (sym_warn_pragma, 7490),
     (sym_allow_pragma, 3140), (sym_test_pragma, 7490), (sym_once_pragma, 7490),
     (sym_must_call_pragma, 7490), (sym_export_pragma, 7490), (sym_pou_pragma, 7194),
     (sym_direct_variable, 7675), (sym_deref_expression, 2373), (sym_variable, 7599),
     (sym_var_access, 2373), (sym_fb_body, 8904), (sym_method_decl, 3159), (sym_SFC, 7970),
     (sym_SFC_network, 7612), (sym_initial_step, 7439), (sym_variable_access, 7530),
     (sym_func_call, 2961), (sym_stmt_list, 7970), (sym__stmt, 2024), (sym_assign, 3150),
     (sym_if_stmt, 3150), (sym_case_stmt, 3150), (sym_for_stmt, 3150), (sym_while_stmt, 3150),
     (sym_repeat_stmt, 3150), (sym_raise_stmt, 3150), (sym_try_stmt, 3150),
     (sym_ERR_clause_outside_try, 3150), (sym_begin_path_expression, 2943), (sym_invocation, 2934),
     (sym_any_invocation, 2935), (sym_this_invocation, 2641), (sym_super_invocation, 2641),
     (sym_super_body_invocation, 2935), (sym_path_expression, 2627), (sym_field_expression, 2373),
     (sym_index_expression, 2373), (sym_ladder_diagram, 7970), (sym_fb_diagram, 7970),
     (aux_sym_func_decl_repeat1, 7194), (aux_sym_SFC_repeat1, 7612),
     (aux_sym_stmt_list_repeat1, 2024), (aux_sym_ladder_diagram_repeat1, 8009),
     (aux_sym_fb_diagram_repeat1, 8013), (sym_identifier, 298),
     (aux_sym_ERR_unexpected_this_in_path_token1, 304),
     (aux_sym_ERR_unexpected_super_in_path_token1, 306), (sym_line_comment, 3),
     (anon_sym_LBRACE, 308), (aux_sym_test_pragma_token1, 9), (aux_sym_once_pragma_token1, 11),
     (aux_sym_must_call_pragma_token1, 13), (aux_sym_export_pragma_token1, 15),
     (anon_sym_SEMI, 310), (anon_sym_PERCENT, 312), (aux_sym_fb_decl_token4, 3352),
     (aux_sym_method_decl_token1, 330), (aux_sym_initial_step_token1, 334),
     (aux_sym__stmt_token1, 340), (aux_sym__stmt_token2, 340), (aux_sym__stmt_token3, 340),
     (aux_sym_if_stmt_token1, 342), (aux_sym_case_stmt_token1, 344), (aux_sym_for_stmt_token1, 346),
     (aux_sym_while_stmt_token1, 348), (aux_sym_repeat_stmt_token1, 350),
     (aux_sym_raise_stmt_token1, 352), (aux_sym_try_stmt_token1, 354),
     (aux_sym_try_stmt_token2, 356), (aux_sym_catch_clause_token1, 356),
     (aux_sym_finally_clause_token1, 356), (sym_ld_rung, 358), (sym_fbd_network, 360),
     (sym_c_style_comment, 3), (sym_pascal_style_comment, 3), (sym_pragma, 3)]"

lemma ts_parse_row_1331_scan: "row_scan tokens_63_2 0 ts_parse_row_1331 = Some (Suc (Suc (Suc (Suc 0))))"
  unfolding ts_parse_row_1331_def by simp

text \<open>Lines 198358 to 198442.\<close>

definition ts_parse_row_1332 :: parse_row where
  "ts_parse_row_1332 =
    [(sym_ERR_assign_func_call, 7530), (sym_ERR_unexpected_this_in_path, 2372),
     (sym_ERR_unexpected_super_in_path, 2372), (sym_ERR_method_decl_in_body, 3150),
     (sym_extern_pragma, 7490), (sym_wasm_pragma, 3150), (sym_warn_pragma, 7490),
     (sym_allow_pragma, 3140), (sym_test_pragma, 7490), (sym_once_pragma, 7490),
     (sym_must_call_pragma, 7490), (sym_export_pragma, 7490), (sym_pou_pragma, 7194),
     (sym_direct_variable, 7675), (sym_deref_expression, 2373), (sym_variable, 7599),
     (sym_var_access, 2373), (sym_fb_body, 9708), (sym_method_decl, 3159), (sym_SFC, 7970),
     (sym_SFC_network, 7612), (sym_initial_step, 7439), (sym_variable_access, 7530),
     (sym_func_call, 2961), (sym_stmt_list, 7970), (sym__stmt, 2024), (sym_assign, 3150),
     (sym_if_stmt, 3150), (sym_case_stmt, 3150), (sym_for_stmt, 3150), (sym_while_stmt, 3150),
     (sym_repeat_stmt, 3150), (sym_raise_stmt, 3150), (sym_try_stmt, 3150),
     (sym_ERR_clause_outside_try, 3150), (sym_begin_path_expression, 2943), (sym_invocation, 2934),
     (sym_any_invocation, 2935), (sym_this_invocation, 2641), (sym_super_invocation, 2641),
     (sym_super_body_invocation, 2935), (sym_path_expression, 2627), (sym_field_expression, 2373),
     (sym_index_expression, 2373), (sym_ladder_diagram, 7970), (sym_fb_diagram, 7970),
     (aux_sym_func_decl_repeat1, 7194), (aux_sym_SFC_repeat1, 7612),
     (aux_sym_stmt_list_repeat1, 2024), (aux_sym_ladder_diagram_repeat1, 8009),
     (aux_sym_fb_diagram_repeat1, 8013), (sym_identifier, 298),
     (aux_sym_ERR_unexpected_this_in_path_token1, 304),
     (aux_sym_ERR_unexpected_super_in_path_token1, 306), (sym_line_comment, 3),
     (anon_sym_LBRACE, 308), (aux_sym_test_pragma_token1, 9), (aux_sym_once_pragma_token1, 11),
     (aux_sym_must_call_pragma_token1, 13), (aux_sym_export_pragma_token1, 15),
     (anon_sym_SEMI, 310), (anon_sym_PERCENT, 312), (aux_sym_fb_decl_token4, 3354),
     (aux_sym_method_decl_token1, 330), (aux_sym_initial_step_token1, 334),
     (aux_sym__stmt_token1, 340), (aux_sym__stmt_token2, 340), (aux_sym__stmt_token3, 340),
     (aux_sym_if_stmt_token1, 342), (aux_sym_case_stmt_token1, 344), (aux_sym_for_stmt_token1, 346),
     (aux_sym_while_stmt_token1, 348), (aux_sym_repeat_stmt_token1, 350),
     (aux_sym_raise_stmt_token1, 352), (aux_sym_try_stmt_token1, 354),
     (aux_sym_try_stmt_token2, 356), (aux_sym_catch_clause_token1, 356),
     (aux_sym_finally_clause_token1, 356), (sym_ld_rung, 358), (sym_fbd_network, 360),
     (sym_c_style_comment, 3), (sym_pascal_style_comment, 3), (sym_pragma, 3)]"

lemma ts_parse_row_1332_scan: "row_scan tokens_63_2 0 ts_parse_row_1332 = Some (Suc (Suc (Suc (Suc 0))))"
  unfolding ts_parse_row_1332_def by simp

text \<open>Lines 198443 to 198527.\<close>

definition ts_parse_row_1333 :: parse_row where
  "ts_parse_row_1333 =
    [(sym_ERR_assign_func_call, 7530), (sym_ERR_unexpected_this_in_path, 2372),
     (sym_ERR_unexpected_super_in_path, 2372), (sym_ERR_method_decl_in_body, 3150),
     (sym_extern_pragma, 7490), (sym_wasm_pragma, 3150), (sym_warn_pragma, 7490),
     (sym_allow_pragma, 3140), (sym_test_pragma, 7490), (sym_once_pragma, 7490),
     (sym_must_call_pragma, 7490), (sym_export_pragma, 7490), (sym_pou_pragma, 7194),
     (sym_direct_variable, 7675), (sym_deref_expression, 2373), (sym_variable, 7599),
     (sym_var_access, 2373), (sym_fb_body, 8912), (sym_method_decl, 3159), (sym_SFC, 7970),
     (sym_SFC_network, 7612), (sym_initial_step, 7439), (sym_variable_access, 7530),
     (sym_func_call, 2961), (sym_stmt_list, 7970), (sym__stmt, 2024), (sym_assign, 3150),
     (sym_if_stmt, 3150), (sym_case_stmt, 3150), (sym_for_stmt, 3150), (sym_while_stmt, 3150),
     (sym_repeat_stmt, 3150), (sym_raise_stmt, 3150), (sym_try_stmt, 3150),
     (sym_ERR_clause_outside_try, 3150), (sym_begin_path_expression, 2943), (sym_invocation, 2934),
     (sym_any_invocation, 2935), (sym_this_invocation, 2641), (sym_super_invocation, 2641),
     (sym_super_body_invocation, 2935), (sym_path_expression, 2627), (sym_field_expression, 2373),
     (sym_index_expression, 2373), (sym_ladder_diagram, 7970), (sym_fb_diagram, 7970),
     (aux_sym_func_decl_repeat1, 7194), (aux_sym_SFC_repeat1, 7612),
     (aux_sym_stmt_list_repeat1, 2024), (aux_sym_ladder_diagram_repeat1, 8009),
     (aux_sym_fb_diagram_repeat1, 8013), (sym_identifier, 298),
     (aux_sym_ERR_unexpected_this_in_path_token1, 304),
     (aux_sym_ERR_unexpected_super_in_path_token1, 306), (sym_line_comment, 3),
     (anon_sym_LBRACE, 308), (aux_sym_test_pragma_token1, 9), (aux_sym_once_pragma_token1, 11),
     (aux_sym_must_call_pragma_token1, 13), (aux_sym_export_pragma_token1, 15),
     (anon_sym_SEMI, 310), (anon_sym_PERCENT, 312), (aux_sym_fb_decl_token4, 3356),
     (aux_sym_method_decl_token1, 330), (aux_sym_initial_step_token1, 334),
     (aux_sym__stmt_token1, 340), (aux_sym__stmt_token2, 340), (aux_sym__stmt_token3, 340),
     (aux_sym_if_stmt_token1, 342), (aux_sym_case_stmt_token1, 344), (aux_sym_for_stmt_token1, 346),
     (aux_sym_while_stmt_token1, 348), (aux_sym_repeat_stmt_token1, 350),
     (aux_sym_raise_stmt_token1, 352), (aux_sym_try_stmt_token1, 354),
     (aux_sym_try_stmt_token2, 356), (aux_sym_catch_clause_token1, 356),
     (aux_sym_finally_clause_token1, 356), (sym_ld_rung, 358), (sym_fbd_network, 360),
     (sym_c_style_comment, 3), (sym_pascal_style_comment, 3), (sym_pragma, 3)]"

lemma ts_parse_row_1333_scan: "row_scan tokens_63_2 0 ts_parse_row_1333 = Some (Suc (Suc (Suc (Suc 0))))"
  unfolding ts_parse_row_1333_def by simp

text \<open>Lines 198528 to 198612.\<close>

definition ts_parse_row_1334 :: parse_row where
  "ts_parse_row_1334 =
    [(sym_ERR_assign_func_call, 7530), (sym_ERR_unexpected_this_in_path, 2372),
     (sym_ERR_unexpected_super_in_path, 2372), (sym_ERR_method_decl_in_body, 3150),
     (sym_extern_pragma, 7490), (sym_wasm_pragma, 3150), (sym_warn_pragma, 7490),
     (sym_allow_pragma, 3140), (sym_test_pragma, 7490), (sym_once_pragma, 7490),
     (sym_must_call_pragma, 7490), (sym_export_pragma, 7490), (sym_pou_pragma, 7194),
     (sym_direct_variable, 7675), (sym_deref_expression, 2373), (sym_variable, 7599),
     (sym_var_access, 2373), (sym_fb_body, 8925), (sym_method_decl, 3159), (sym_SFC, 7970),
     (sym_SFC_network, 7612), (sym_initial_step, 7439), (sym_variable_access, 7530),
     (sym_func_call, 2961), (sym_stmt_list, 7970), (sym__stmt, 2024), (sym_assign, 3150),
     (sym_if_stmt, 3150), (sym_case_stmt, 3150), (sym_for_stmt, 3150), (sym_while_stmt, 3150),
     (sym_repeat_stmt, 3150), (sym_raise_stmt, 3150), (sym_try_stmt, 3150),
     (sym_ERR_clause_outside_try, 3150), (sym_begin_path_expression, 2943), (sym_invocation, 2934),
     (sym_any_invocation, 2935), (sym_this_invocation, 2641), (sym_super_invocation, 2641),
     (sym_super_body_invocation, 2935), (sym_path_expression, 2627), (sym_field_expression, 2373),
     (sym_index_expression, 2373), (sym_ladder_diagram, 7970), (sym_fb_diagram, 7970),
     (aux_sym_func_decl_repeat1, 7194), (aux_sym_SFC_repeat1, 7612),
     (aux_sym_stmt_list_repeat1, 2024), (aux_sym_ladder_diagram_repeat1, 8009),
     (aux_sym_fb_diagram_repeat1, 8013), (sym_identifier, 298),
     (aux_sym_ERR_unexpected_this_in_path_token1, 304),
     (aux_sym_ERR_unexpected_super_in_path_token1, 306), (sym_line_comment, 3),
     (anon_sym_LBRACE, 308), (aux_sym_test_pragma_token1, 9), (aux_sym_once_pragma_token1, 11),
     (aux_sym_must_call_pragma_token1, 13), (aux_sym_export_pragma_token1, 15),
     (anon_sym_SEMI, 310), (anon_sym_PERCENT, 312), (aux_sym_fb_decl_token4, 3358),
     (aux_sym_method_decl_token1, 330), (aux_sym_initial_step_token1, 334),
     (aux_sym__stmt_token1, 340), (aux_sym__stmt_token2, 340), (aux_sym__stmt_token3, 340),
     (aux_sym_if_stmt_token1, 342), (aux_sym_case_stmt_token1, 344), (aux_sym_for_stmt_token1, 346),
     (aux_sym_while_stmt_token1, 348), (aux_sym_repeat_stmt_token1, 350),
     (aux_sym_raise_stmt_token1, 352), (aux_sym_try_stmt_token1, 354),
     (aux_sym_try_stmt_token2, 356), (aux_sym_catch_clause_token1, 356),
     (aux_sym_finally_clause_token1, 356), (sym_ld_rung, 358), (sym_fbd_network, 360),
     (sym_c_style_comment, 3), (sym_pascal_style_comment, 3), (sym_pragma, 3)]"

lemma ts_parse_row_1334_scan: "row_scan tokens_63_2 0 ts_parse_row_1334 = Some (Suc (Suc (Suc (Suc 0))))"
  unfolding ts_parse_row_1334_def by simp

text \<open>Lines 198613 to 198697.\<close>

definition ts_parse_row_1335 :: parse_row where
  "ts_parse_row_1335 =
    [(sym_ERR_assign_func_call, 7530), (sym_ERR_unexpected_this_in_path, 2372),
     (sym_ERR_unexpected_super_in_path, 2372), (sym_ERR_method_decl_in_body, 3150),
     (sym_extern_pragma, 7490), (sym_wasm_pragma, 3150), (sym_warn_pragma, 7490),
     (sym_allow_pragma, 3140), (sym_test_pragma, 7490), (sym_once_pragma, 7490),
     (sym_must_call_pragma, 7490), (sym_export_pragma, 7490), (sym_pou_pragma, 7194),
     (sym_direct_variable, 7675), (sym_deref_expression, 2373), (sym_variable, 7599),
     (sym_var_access, 2373), (sym_fb_body, 8934), (sym_method_decl, 3159), (sym_SFC, 7970),
     (sym_SFC_network, 7612), (sym_initial_step, 7439), (sym_variable_access, 7530),
     (sym_func_call, 2961), (sym_stmt_list, 7970), (sym__stmt, 2024), (sym_assign, 3150),
     (sym_if_stmt, 3150), (sym_case_stmt, 3150), (sym_for_stmt, 3150), (sym_while_stmt, 3150),
     (sym_repeat_stmt, 3150), (sym_raise_stmt, 3150), (sym_try_stmt, 3150),
     (sym_ERR_clause_outside_try, 3150), (sym_begin_path_expression, 2943), (sym_invocation, 2934),
     (sym_any_invocation, 2935), (sym_this_invocation, 2641), (sym_super_invocation, 2641),
     (sym_super_body_invocation, 2935), (sym_path_expression, 2627), (sym_field_expression, 2373),
     (sym_index_expression, 2373), (sym_ladder_diagram, 7970), (sym_fb_diagram, 7970),
     (aux_sym_func_decl_repeat1, 7194), (aux_sym_SFC_repeat1, 7612),
     (aux_sym_stmt_list_repeat1, 2024), (aux_sym_ladder_diagram_repeat1, 8009),
     (aux_sym_fb_diagram_repeat1, 8013), (sym_identifier, 298),
     (aux_sym_ERR_unexpected_this_in_path_token1, 304),
     (aux_sym_ERR_unexpected_super_in_path_token1, 306), (sym_line_comment, 3),
     (anon_sym_LBRACE, 308), (aux_sym_test_pragma_token1, 9), (aux_sym_once_pragma_token1, 11),
     (aux_sym_must_call_pragma_token1, 13), (aux_sym_export_pragma_token1, 15),
     (anon_sym_SEMI, 310), (anon_sym_PERCENT, 312), (aux_sym_fb_decl_token4, 3360),
     (aux_sym_method_decl_token1, 330), (aux_sym_initial_step_token1, 334),
     (aux_sym__stmt_token1, 340), (aux_sym__stmt_token2, 340), (aux_sym__stmt_token3, 340),
     (aux_sym_if_stmt_token1, 342), (aux_sym_case_stmt_token1, 344), (aux_sym_for_stmt_token1, 346),
     (aux_sym_while_stmt_token1, 348), (aux_sym_repeat_stmt_token1, 350),
     (aux_sym_raise_stmt_token1, 352), (aux_sym_try_stmt_token1, 354),
     (aux_sym_try_stmt_token2, 356), (aux_sym_catch_clause_token1, 356),
     (aux_sym_finally_clause_token1, 356), (sym_ld_rung, 358), (sym_fbd_network, 360),
     (sym_c_style_comment, 3), (sym_pascal_style_comment, 3), (sym_pragma, 3)]"

lemma ts_parse_row_1335_scan: "row_scan tokens_63_2 0 ts_parse_row_1335 = Some (Suc (Suc (Suc (Suc 0))))"
  unfolding ts_parse_row_1335_def by simp

text \<open>Lines 198698 to 198782.\<close>

definition ts_parse_row_1336 :: parse_row where
  "ts_parse_row_1336 =
    [(sym_ERR_assign_func_call, 7530), (sym_ERR_unexpected_this_in_path, 2372),
     (sym_ERR_unexpected_super_in_path, 2372), (sym_ERR_method_decl_in_body, 3150),
     (sym_extern_pragma, 7490), (sym_wasm_pragma, 3150), (sym_warn_pragma, 7490),
     (sym_allow_pragma, 3140), (sym_test_pragma, 7490), (sym_once_pragma, 7490),
     (sym_must_call_pragma, 7490), (sym_export_pragma, 7490), (sym_pou_pragma, 7194),
     (sym_direct_variable, 7675), (sym_deref_expression, 2373), (sym_variable, 7599),
     (sym_var_access, 2373), (sym_fb_body, 8940), (sym_method_decl, 3159), (sym_SFC, 7970),
     (sym_SFC_network, 7612), (sym_initial_step, 7439), (sym_variable_access, 7530),
     (sym_func_call, 2961), (sym_stmt_list, 7970), (sym__stmt, 2024), (sym_assign, 3150),
     (sym_if_stmt, 3150), (sym_case_stmt, 3150), (sym_for_stmt, 3150), (sym_while_stmt, 3150),
     (sym_repeat_stmt, 3150), (sym_raise_stmt, 3150), (sym_try_stmt, 3150),
     (sym_ERR_clause_outside_try, 3150), (sym_begin_path_expression, 2943), (sym_invocation, 2934),
     (sym_any_invocation, 2935), (sym_this_invocation, 2641), (sym_super_invocation, 2641),
     (sym_super_body_invocation, 2935), (sym_path_expression, 2627), (sym_field_expression, 2373),
     (sym_index_expression, 2373), (sym_ladder_diagram, 7970), (sym_fb_diagram, 7970),
     (aux_sym_func_decl_repeat1, 7194), (aux_sym_SFC_repeat1, 7612),
     (aux_sym_stmt_list_repeat1, 2024), (aux_sym_ladder_diagram_repeat1, 8009),
     (aux_sym_fb_diagram_repeat1, 8013), (sym_identifier, 298),
     (aux_sym_ERR_unexpected_this_in_path_token1, 304),
     (aux_sym_ERR_unexpected_super_in_path_token1, 306), (sym_line_comment, 3),
     (anon_sym_LBRACE, 308), (aux_sym_test_pragma_token1, 9), (aux_sym_once_pragma_token1, 11),
     (aux_sym_must_call_pragma_token1, 13), (aux_sym_export_pragma_token1, 15),
     (anon_sym_SEMI, 310), (anon_sym_PERCENT, 312), (aux_sym_fb_decl_token4, 3362),
     (aux_sym_method_decl_token1, 330), (aux_sym_initial_step_token1, 334),
     (aux_sym__stmt_token1, 340), (aux_sym__stmt_token2, 340), (aux_sym__stmt_token3, 340),
     (aux_sym_if_stmt_token1, 342), (aux_sym_case_stmt_token1, 344), (aux_sym_for_stmt_token1, 346),
     (aux_sym_while_stmt_token1, 348), (aux_sym_repeat_stmt_token1, 350),
     (aux_sym_raise_stmt_token1, 352), (aux_sym_try_stmt_token1, 354),
     (aux_sym_try_stmt_token2, 356), (aux_sym_catch_clause_token1, 356),
     (aux_sym_finally_clause_token1, 356), (sym_ld_rung, 358), (sym_fbd_network, 360),
     (sym_c_style_comment, 3), (sym_pascal_style_comment, 3), (sym_pragma, 3)]"

lemma ts_parse_row_1336_scan: "row_scan tokens_63_2 0 ts_parse_row_1336 = Some (Suc (Suc (Suc (Suc 0))))"
  unfolding ts_parse_row_1336_def by simp

text \<open>Lines 198783 to 198867.\<close>

definition ts_parse_row_1337 :: parse_row where
  "ts_parse_row_1337 =
    [(sym_ERR_assign_func_call, 7530), (sym_ERR_unexpected_this_in_path, 2372),
     (sym_ERR_unexpected_super_in_path, 2372), (sym_ERR_method_decl_in_body, 3150),
     (sym_extern_pragma, 7490), (sym_wasm_pragma, 3150), (sym_warn_pragma, 7490),
     (sym_allow_pragma, 3140), (sym_test_pragma, 7490), (sym_once_pragma, 7490),
     (sym_must_call_pragma, 7490), (sym_export_pragma, 7490), (sym_pou_pragma, 7194),
     (sym_direct_variable, 7675), (sym_deref_expression, 2373), (sym_variable, 7599),
     (sym_var_access, 2373), (sym_fb_body, 8946), (sym_method_decl, 3159), (sym_SFC, 7970),
     (sym_SFC_network, 7612), (sym_initial_step, 7439), (sym_variable_access, 7530),
     (sym_func_call, 2961), (sym_stmt_list, 7970), (sym__stmt, 2024), (sym_assign, 3150),
     (sym_if_stmt, 3150), (sym_case_stmt, 3150), (sym_for_stmt, 3150), (sym_while_stmt, 3150),
     (sym_repeat_stmt, 3150), (sym_raise_stmt, 3150), (sym_try_stmt, 3150),
     (sym_ERR_clause_outside_try, 3150), (sym_begin_path_expression, 2943), (sym_invocation, 2934),
     (sym_any_invocation, 2935), (sym_this_invocation, 2641), (sym_super_invocation, 2641),
     (sym_super_body_invocation, 2935), (sym_path_expression, 2627), (sym_field_expression, 2373),
     (sym_index_expression, 2373), (sym_ladder_diagram, 7970), (sym_fb_diagram, 7970),
     (aux_sym_func_decl_repeat1, 7194), (aux_sym_SFC_repeat1, 7612),
     (aux_sym_stmt_list_repeat1, 2024), (aux_sym_ladder_diagram_repeat1, 8009),
     (aux_sym_fb_diagram_repeat1, 8013), (sym_identifier, 298),
     (aux_sym_ERR_unexpected_this_in_path_token1, 304),
     (aux_sym_ERR_unexpected_super_in_path_token1, 306), (sym_line_comment, 3),
     (anon_sym_LBRACE, 308), (aux_sym_test_pragma_token1, 9), (aux_sym_once_pragma_token1, 11),
     (aux_sym_must_call_pragma_token1, 13), (aux_sym_export_pragma_token1, 15),
     (anon_sym_SEMI, 310), (anon_sym_PERCENT, 312), (aux_sym_fb_decl_token4, 3364),
     (aux_sym_method_decl_token1, 330), (aux_sym_initial_step_token1, 334),
     (aux_sym__stmt_token1, 340), (aux_sym__stmt_token2, 340), (aux_sym__stmt_token3, 340),
     (aux_sym_if_stmt_token1, 342), (aux_sym_case_stmt_token1, 344), (aux_sym_for_stmt_token1, 346),
     (aux_sym_while_stmt_token1, 348), (aux_sym_repeat_stmt_token1, 350),
     (aux_sym_raise_stmt_token1, 352), (aux_sym_try_stmt_token1, 354),
     (aux_sym_try_stmt_token2, 356), (aux_sym_catch_clause_token1, 356),
     (aux_sym_finally_clause_token1, 356), (sym_ld_rung, 358), (sym_fbd_network, 360),
     (sym_c_style_comment, 3), (sym_pascal_style_comment, 3), (sym_pragma, 3)]"

lemma ts_parse_row_1337_scan: "row_scan tokens_63_2 0 ts_parse_row_1337 = Some (Suc (Suc (Suc (Suc 0))))"
  unfolding ts_parse_row_1337_def by simp

text \<open>Lines 198868 to 198952.\<close>

definition ts_parse_row_1338 :: parse_row where
  "ts_parse_row_1338 =
    [(sym_ERR_assign_func_call, 7530), (sym_ERR_unexpected_this_in_path, 2372),
     (sym_ERR_unexpected_super_in_path, 2372), (sym_ERR_method_decl_in_body, 3150),
     (sym_extern_pragma, 7490), (sym_wasm_pragma, 3150), (sym_warn_pragma, 7490),
     (sym_allow_pragma, 3140), (sym_test_pragma, 7490), (sym_once_pragma, 7490),
     (sym_must_call_pragma, 7490), (sym_export_pragma, 7490), (sym_pou_pragma, 7194),
     (sym_direct_variable, 7675), (sym_deref_expression, 2373), (sym_variable, 7599),
     (sym_var_access, 2373), (sym_fb_body, 9726), (sym_method_decl, 3159), (sym_SFC, 7970),
     (sym_SFC_network, 7612), (sym_initial_step, 7439), (sym_variable_access, 7530),
     (sym_func_call, 2961), (sym_stmt_list, 7970), (sym__stmt, 2024), (sym_assign, 3150),
     (sym_if_stmt, 3150), (sym_case_stmt, 3150), (sym_for_stmt, 3150), (sym_while_stmt, 3150),
     (sym_repeat_stmt, 3150), (sym_raise_stmt, 3150), (sym_try_stmt, 3150),
     (sym_ERR_clause_outside_try, 3150), (sym_begin_path_expression, 2943), (sym_invocation, 2934),
     (sym_any_invocation, 2935), (sym_this_invocation, 2641), (sym_super_invocation, 2641),
     (sym_super_body_invocation, 2935), (sym_path_expression, 2627), (sym_field_expression, 2373),
     (sym_index_expression, 2373), (sym_ladder_diagram, 7970), (sym_fb_diagram, 7970),
     (aux_sym_func_decl_repeat1, 7194), (aux_sym_SFC_repeat1, 7612),
     (aux_sym_stmt_list_repeat1, 2024), (aux_sym_ladder_diagram_repeat1, 8009),
     (aux_sym_fb_diagram_repeat1, 8013), (sym_identifier, 298),
     (aux_sym_ERR_unexpected_this_in_path_token1, 304),
     (aux_sym_ERR_unexpected_super_in_path_token1, 306), (sym_line_comment, 3),
     (anon_sym_LBRACE, 308), (aux_sym_test_pragma_token1, 9), (aux_sym_once_pragma_token1, 11),
     (aux_sym_must_call_pragma_token1, 13), (aux_sym_export_pragma_token1, 15),
     (anon_sym_SEMI, 310), (anon_sym_PERCENT, 312), (aux_sym_fb_decl_token4, 3366),
     (aux_sym_method_decl_token1, 330), (aux_sym_initial_step_token1, 334),
     (aux_sym__stmt_token1, 340), (aux_sym__stmt_token2, 340), (aux_sym__stmt_token3, 340),
     (aux_sym_if_stmt_token1, 342), (aux_sym_case_stmt_token1, 344), (aux_sym_for_stmt_token1, 346),
     (aux_sym_while_stmt_token1, 348), (aux_sym_repeat_stmt_token1, 350),
     (aux_sym_raise_stmt_token1, 352), (aux_sym_try_stmt_token1, 354),
     (aux_sym_try_stmt_token2, 356), (aux_sym_catch_clause_token1, 356),
     (aux_sym_finally_clause_token1, 356), (sym_ld_rung, 358), (sym_fbd_network, 360),
     (sym_c_style_comment, 3), (sym_pascal_style_comment, 3), (sym_pragma, 3)]"

lemma ts_parse_row_1338_scan: "row_scan tokens_63_2 0 ts_parse_row_1338 = Some (Suc (Suc (Suc (Suc 0))))"
  unfolding ts_parse_row_1338_def by simp

text \<open>Lines 198953 to 199037.\<close>

definition ts_parse_row_1339 :: parse_row where
  "ts_parse_row_1339 =
    [(sym_ERR_assign_func_call, 7530), (sym_ERR_unexpected_this_in_path, 2372),
     (sym_ERR_unexpected_super_in_path, 2372), (sym_ERR_method_decl_in_body, 3150),
     (sym_extern_pragma, 7490), (sym_wasm_pragma, 3150), (sym_warn_pragma, 7490),
     (sym_allow_pragma, 3140), (sym_test_pragma, 7490), (sym_once_pragma, 7490),
     (sym_must_call_pragma, 7490), (sym_export_pragma, 7490), (sym_pou_pragma, 7194),
     (sym_direct_variable, 7675), (sym_deref_expression, 2373), (sym_variable, 7599),
     (sym_var_access, 2373), (sym_fb_body, 8954), (sym_method_decl, 3159), (sym_SFC, 7970),
     (sym_SFC_network, 7612), (sym_initial_step, 7439), (sym_variable_access, 7530),
     (sym_func_call, 2961), (sym_stmt_list, 7970), (sym__stmt, 2024), (sym_assign, 3150),
     (sym_if_stmt, 3150), (sym_case_stmt, 3150), (sym_for_stmt, 3150), (sym_while_stmt, 3150),
     (sym_repeat_stmt, 3150), (sym_raise_stmt, 3150), (sym_try_stmt, 3150),
     (sym_ERR_clause_outside_try, 3150), (sym_begin_path_expression, 2943), (sym_invocation, 2934),
     (sym_any_invocation, 2935), (sym_this_invocation, 2641), (sym_super_invocation, 2641),
     (sym_super_body_invocation, 2935), (sym_path_expression, 2627), (sym_field_expression, 2373),
     (sym_index_expression, 2373), (sym_ladder_diagram, 7970), (sym_fb_diagram, 7970),
     (aux_sym_func_decl_repeat1, 7194), (aux_sym_SFC_repeat1, 7612),
     (aux_sym_stmt_list_repeat1, 2024), (aux_sym_ladder_diagram_repeat1, 8009),
     (aux_sym_fb_diagram_repeat1, 8013), (sym_identifier, 298),
     (aux_sym_ERR_unexpected_this_in_path_token1, 304),
     (aux_sym_ERR_unexpected_super_in_path_token1, 306), (sym_line_comment, 3),
     (anon_sym_LBRACE, 308), (aux_sym_test_pragma_token1, 9), (aux_sym_once_pragma_token1, 11),
     (aux_sym_must_call_pragma_token1, 13), (aux_sym_export_pragma_token1, 15),
     (anon_sym_SEMI, 310), (anon_sym_PERCENT, 312), (aux_sym_fb_decl_token4, 3368),
     (aux_sym_method_decl_token1, 330), (aux_sym_initial_step_token1, 334),
     (aux_sym__stmt_token1, 340), (aux_sym__stmt_token2, 340), (aux_sym__stmt_token3, 340),
     (aux_sym_if_stmt_token1, 342), (aux_sym_case_stmt_token1, 344), (aux_sym_for_stmt_token1, 346),
     (aux_sym_while_stmt_token1, 348), (aux_sym_repeat_stmt_token1, 350),
     (aux_sym_raise_stmt_token1, 352), (aux_sym_try_stmt_token1, 354),
     (aux_sym_try_stmt_token2, 356), (aux_sym_catch_clause_token1, 356),
     (aux_sym_finally_clause_token1, 356), (sym_ld_rung, 358), (sym_fbd_network, 360),
     (sym_c_style_comment, 3), (sym_pascal_style_comment, 3), (sym_pragma, 3)]"

lemma ts_parse_row_1339_scan: "row_scan tokens_63_2 0 ts_parse_row_1339 = Some (Suc (Suc (Suc (Suc 0))))"
  unfolding ts_parse_row_1339_def by simp

text \<open>Lines 199038 to 199122.\<close>

definition ts_parse_row_1340 :: parse_row where
  "ts_parse_row_1340 =
    [(sym_ERR_assign_func_call, 7530), (sym_ERR_unexpected_this_in_path, 2372),
     (sym_ERR_unexpected_super_in_path, 2372), (sym_ERR_method_decl_in_body, 3150),
     (sym_extern_pragma, 7490), (sym_wasm_pragma, 3150), (sym_warn_pragma, 7490),
     (sym_allow_pragma, 3140), (sym_test_pragma, 7490), (sym_once_pragma, 7490),
     (sym_must_call_pragma, 7490), (sym_export_pragma, 7490), (sym_pou_pragma, 7194),
     (sym_direct_variable, 7675), (sym_deref_expression, 2373), (sym_variable, 7599),
     (sym_var_access, 2373), (sym_fb_body, 8961), (sym_method_decl, 3159), (sym_SFC, 7970),
     (sym_SFC_network, 7612), (sym_initial_step, 7439), (sym_variable_access, 7530),
     (sym_func_call, 2961), (sym_stmt_list, 7970), (sym__stmt, 2024), (sym_assign, 3150),
     (sym_if_stmt, 3150), (sym_case_stmt, 3150), (sym_for_stmt, 3150), (sym_while_stmt, 3150),
     (sym_repeat_stmt, 3150), (sym_raise_stmt, 3150), (sym_try_stmt, 3150),
     (sym_ERR_clause_outside_try, 3150), (sym_begin_path_expression, 2943), (sym_invocation, 2934),
     (sym_any_invocation, 2935), (sym_this_invocation, 2641), (sym_super_invocation, 2641),
     (sym_super_body_invocation, 2935), (sym_path_expression, 2627), (sym_field_expression, 2373),
     (sym_index_expression, 2373), (sym_ladder_diagram, 7970), (sym_fb_diagram, 7970),
     (aux_sym_func_decl_repeat1, 7194), (aux_sym_SFC_repeat1, 7612),
     (aux_sym_stmt_list_repeat1, 2024), (aux_sym_ladder_diagram_repeat1, 8009),
     (aux_sym_fb_diagram_repeat1, 8013), (sym_identifier, 298),
     (aux_sym_ERR_unexpected_this_in_path_token1, 304),
     (aux_sym_ERR_unexpected_super_in_path_token1, 306), (sym_line_comment, 3),
     (anon_sym_LBRACE, 308), (aux_sym_test_pragma_token1, 9), (aux_sym_once_pragma_token1, 11),
     (aux_sym_must_call_pragma_token1, 13), (aux_sym_export_pragma_token1, 15),
     (anon_sym_SEMI, 310), (anon_sym_PERCENT, 312), (aux_sym_fb_decl_token4, 3370),
     (aux_sym_method_decl_token1, 330), (aux_sym_initial_step_token1, 334),
     (aux_sym__stmt_token1, 340), (aux_sym__stmt_token2, 340), (aux_sym__stmt_token3, 340),
     (aux_sym_if_stmt_token1, 342), (aux_sym_case_stmt_token1, 344), (aux_sym_for_stmt_token1, 346),
     (aux_sym_while_stmt_token1, 348), (aux_sym_repeat_stmt_token1, 350),
     (aux_sym_raise_stmt_token1, 352), (aux_sym_try_stmt_token1, 354),
     (aux_sym_try_stmt_token2, 356), (aux_sym_catch_clause_token1, 356),
     (aux_sym_finally_clause_token1, 356), (sym_ld_rung, 358), (sym_fbd_network, 360),
     (sym_c_style_comment, 3), (sym_pascal_style_comment, 3), (sym_pragma, 3)]"

lemma ts_parse_row_1340_scan: "row_scan tokens_63_2 0 ts_parse_row_1340 = Some (Suc (Suc (Suc (Suc 0))))"
  unfolding ts_parse_row_1340_def by simp

text \<open>Lines 199123 to 199207.\<close>

definition ts_parse_row_1341 :: parse_row where
  "ts_parse_row_1341 =
    [(sym_ERR_assign_func_call, 7530), (sym_ERR_unexpected_this_in_path, 2372),
     (sym_ERR_unexpected_super_in_path, 2372), (sym_ERR_method_decl_in_body, 3150),
     (sym_extern_pragma, 7490), (sym_wasm_pragma, 3150), (sym_warn_pragma, 7490),
     (sym_allow_pragma, 3140), (sym_test_pragma, 7490), (sym_once_pragma, 7490),
     (sym_must_call_pragma, 7490), (sym_export_pragma, 7490), (sym_pou_pragma, 7194),
     (sym_direct_variable, 7675), (sym_deref_expression, 2373), (sym_variable, 7599),
     (sym_var_access, 2373), (sym_fb_body, 8970), (sym_method_decl, 3159), (sym_SFC, 7970),
     (sym_SFC_network, 7612), (sym_initial_step, 7439), (sym_variable_access, 7530),
     (sym_func_call, 2961), (sym_stmt_list, 7970), (sym__stmt, 2024), (sym_assign, 3150),
     (sym_if_stmt, 3150), (sym_case_stmt, 3150), (sym_for_stmt, 3150), (sym_while_stmt, 3150),
     (sym_repeat_stmt, 3150), (sym_raise_stmt, 3150), (sym_try_stmt, 3150),
     (sym_ERR_clause_outside_try, 3150), (sym_begin_path_expression, 2943), (sym_invocation, 2934),
     (sym_any_invocation, 2935), (sym_this_invocation, 2641), (sym_super_invocation, 2641),
     (sym_super_body_invocation, 2935), (sym_path_expression, 2627), (sym_field_expression, 2373),
     (sym_index_expression, 2373), (sym_ladder_diagram, 7970), (sym_fb_diagram, 7970),
     (aux_sym_func_decl_repeat1, 7194), (aux_sym_SFC_repeat1, 7612),
     (aux_sym_stmt_list_repeat1, 2024), (aux_sym_ladder_diagram_repeat1, 8009),
     (aux_sym_fb_diagram_repeat1, 8013), (sym_identifier, 298),
     (aux_sym_ERR_unexpected_this_in_path_token1, 304),
     (aux_sym_ERR_unexpected_super_in_path_token1, 306), (sym_line_comment, 3),
     (anon_sym_LBRACE, 308), (aux_sym_test_pragma_token1, 9), (aux_sym_once_pragma_token1, 11),
     (aux_sym_must_call_pragma_token1, 13), (aux_sym_export_pragma_token1, 15),
     (anon_sym_SEMI, 310), (anon_sym_PERCENT, 312), (aux_sym_fb_decl_token4, 3372),
     (aux_sym_method_decl_token1, 330), (aux_sym_initial_step_token1, 334),
     (aux_sym__stmt_token1, 340), (aux_sym__stmt_token2, 340), (aux_sym__stmt_token3, 340),
     (aux_sym_if_stmt_token1, 342), (aux_sym_case_stmt_token1, 344), (aux_sym_for_stmt_token1, 346),
     (aux_sym_while_stmt_token1, 348), (aux_sym_repeat_stmt_token1, 350),
     (aux_sym_raise_stmt_token1, 352), (aux_sym_try_stmt_token1, 354),
     (aux_sym_try_stmt_token2, 356), (aux_sym_catch_clause_token1, 356),
     (aux_sym_finally_clause_token1, 356), (sym_ld_rung, 358), (sym_fbd_network, 360),
     (sym_c_style_comment, 3), (sym_pascal_style_comment, 3), (sym_pragma, 3)]"

lemma ts_parse_row_1341_scan: "row_scan tokens_63_2 0 ts_parse_row_1341 = Some (Suc (Suc (Suc (Suc 0))))"
  unfolding ts_parse_row_1341_def by simp

text \<open>Lines 199208 to 199292.\<close>

definition ts_parse_row_1342 :: parse_row where
  "ts_parse_row_1342 =
    [(sym_ERR_assign_func_call, 7530), (sym_ERR_unexpected_this_in_path, 2372),
     (sym_ERR_unexpected_super_in_path, 2372), (sym_ERR_method_decl_in_body, 3150),
     (sym_extern_pragma, 7490), (sym_wasm_pragma, 3150), (sym_warn_pragma, 7490),
     (sym_allow_pragma, 3140), (sym_test_pragma, 7490), (sym_once_pragma, 7490),
     (sym_must_call_pragma, 7490), (sym_export_pragma, 7490), (sym_pou_pragma, 7194),
     (sym_direct_variable, 7675), (sym_deref_expression, 2373), (sym_variable, 7599),
     (sym_var_access, 2373), (sym_fb_body, 8983), (sym_method_decl, 3159), (sym_SFC, 7970),
     (sym_SFC_network, 7612), (sym_initial_step, 7439), (sym_variable_access, 7530),
     (sym_func_call, 2961), (sym_stmt_list, 7970), (sym__stmt, 2024), (sym_assign, 3150),
     (sym_if_stmt, 3150), (sym_case_stmt, 3150), (sym_for_stmt, 3150), (sym_while_stmt, 3150),
     (sym_repeat_stmt, 3150), (sym_raise_stmt, 3150), (sym_try_stmt, 3150),
     (sym_ERR_clause_outside_try, 3150), (sym_begin_path_expression, 2943), (sym_invocation, 2934),
     (sym_any_invocation, 2935), (sym_this_invocation, 2641), (sym_super_invocation, 2641),
     (sym_super_body_invocation, 2935), (sym_path_expression, 2627), (sym_field_expression, 2373),
     (sym_index_expression, 2373), (sym_ladder_diagram, 7970), (sym_fb_diagram, 7970),
     (aux_sym_func_decl_repeat1, 7194), (aux_sym_SFC_repeat1, 7612),
     (aux_sym_stmt_list_repeat1, 2024), (aux_sym_ladder_diagram_repeat1, 8009),
     (aux_sym_fb_diagram_repeat1, 8013), (sym_identifier, 298),
     (aux_sym_ERR_unexpected_this_in_path_token1, 304),
     (aux_sym_ERR_unexpected_super_in_path_token1, 306), (sym_line_comment, 3),
     (anon_sym_LBRACE, 308), (aux_sym_test_pragma_token1, 9), (aux_sym_once_pragma_token1, 11),
     (aux_sym_must_call_pragma_token1, 13), (aux_sym_export_pragma_token1, 15),
     (anon_sym_SEMI, 310), (anon_sym_PERCENT, 312), (aux_sym_fb_decl_token4, 3374),
     (aux_sym_method_decl_token1, 330), (aux_sym_initial_step_token1, 334),
     (aux_sym__stmt_token1, 340), (aux_sym__stmt_token2, 340), (aux_sym__stmt_token3, 340),
     (aux_sym_if_stmt_token1, 342), (aux_sym_case_stmt_token1, 344), (aux_sym_for_stmt_token1, 346),
     (aux_sym_while_stmt_token1, 348), (aux_sym_repeat_stmt_token1, 350),
     (aux_sym_raise_stmt_token1, 352), (aux_sym_try_stmt_token1, 354),
     (aux_sym_try_stmt_token2, 356), (aux_sym_catch_clause_token1, 356),
     (aux_sym_finally_clause_token1, 356), (sym_ld_rung, 358), (sym_fbd_network, 360),
     (sym_c_style_comment, 3), (sym_pascal_style_comment, 3), (sym_pragma, 3)]"

lemma ts_parse_row_1342_scan: "row_scan tokens_63_2 0 ts_parse_row_1342 = Some (Suc (Suc (Suc (Suc 0))))"
  unfolding ts_parse_row_1342_def by simp

text \<open>Lines 199293 to 199377.\<close>

definition ts_parse_row_1343 :: parse_row where
  "ts_parse_row_1343 =
    [(sym_ERR_assign_func_call, 7530), (sym_ERR_unexpected_this_in_path, 2372),
     (sym_ERR_unexpected_super_in_path, 2372), (sym_ERR_method_decl_in_body, 3150),
     (sym_extern_pragma, 7490), (sym_wasm_pragma, 3150), (sym_warn_pragma, 7490),
     (sym_allow_pragma, 3140), (sym_test_pragma, 7490), (sym_once_pragma, 7490),
     (sym_must_call_pragma, 7490), (sym_export_pragma, 7490), (sym_pou_pragma, 7194),
     (sym_direct_variable, 7675), (sym_deref_expression, 2373), (sym_variable, 7599),
     (sym_var_access, 2373), (sym_fb_body, 8999), (sym_method_decl, 3159), (sym_SFC, 7970),
     (sym_SFC_network, 7612), (sym_initial_step, 7439), (sym_variable_access, 7530),
     (sym_func_call, 2961), (sym_stmt_list, 7970), (sym__stmt, 2024), (sym_assign, 3150),
     (sym_if_stmt, 3150), (sym_case_stmt, 3150), (sym_for_stmt, 3150), (sym_while_stmt, 3150),
     (sym_repeat_stmt, 3150), (sym_raise_stmt, 3150), (sym_try_stmt, 3150),
     (sym_ERR_clause_outside_try, 3150), (sym_begin_path_expression, 2943), (sym_invocation, 2934),
     (sym_any_invocation, 2935), (sym_this_invocation, 2641), (sym_super_invocation, 2641),
     (sym_super_body_invocation, 2935), (sym_path_expression, 2627), (sym_field_expression, 2373),
     (sym_index_expression, 2373), (sym_ladder_diagram, 7970), (sym_fb_diagram, 7970),
     (aux_sym_func_decl_repeat1, 7194), (aux_sym_SFC_repeat1, 7612),
     (aux_sym_stmt_list_repeat1, 2024), (aux_sym_ladder_diagram_repeat1, 8009),
     (aux_sym_fb_diagram_repeat1, 8013), (sym_identifier, 298),
     (aux_sym_ERR_unexpected_this_in_path_token1, 304),
     (aux_sym_ERR_unexpected_super_in_path_token1, 306), (sym_line_comment, 3),
     (anon_sym_LBRACE, 308), (aux_sym_test_pragma_token1, 9), (aux_sym_once_pragma_token1, 11),
     (aux_sym_must_call_pragma_token1, 13), (aux_sym_export_pragma_token1, 15),
     (anon_sym_SEMI, 310), (anon_sym_PERCENT, 312), (aux_sym_fb_decl_token4, 3376),
     (aux_sym_method_decl_token1, 330), (aux_sym_initial_step_token1, 334),
     (aux_sym__stmt_token1, 340), (aux_sym__stmt_token2, 340), (aux_sym__stmt_token3, 340),
     (aux_sym_if_stmt_token1, 342), (aux_sym_case_stmt_token1, 344), (aux_sym_for_stmt_token1, 346),
     (aux_sym_while_stmt_token1, 348), (aux_sym_repeat_stmt_token1, 350),
     (aux_sym_raise_stmt_token1, 352), (aux_sym_try_stmt_token1, 354),
     (aux_sym_try_stmt_token2, 356), (aux_sym_catch_clause_token1, 356),
     (aux_sym_finally_clause_token1, 356), (sym_ld_rung, 358), (sym_fbd_network, 360),
     (sym_c_style_comment, 3), (sym_pascal_style_comment, 3), (sym_pragma, 3)]"

lemma ts_parse_row_1343_scan: "row_scan tokens_63_2 0 ts_parse_row_1343 = Some (Suc (Suc (Suc (Suc 0))))"
  unfolding ts_parse_row_1343_def by simp

text \<open>Lines 199378 to 199462.\<close>

definition ts_parse_row_1344 :: parse_row where
  "ts_parse_row_1344 =
    [(sym_ERR_assign_func_call, 7530), (sym_ERR_unexpected_this_in_path, 2372),
     (sym_ERR_unexpected_super_in_path, 2372), (sym_ERR_method_decl_in_body, 3150),
     (sym_extern_pragma, 7490), (sym_wasm_pragma, 3150), (sym_warn_pragma, 7490),
     (sym_allow_pragma, 3140), (sym_test_pragma, 7490), (sym_once_pragma, 7490),
     (sym_must_call_pragma, 7490), (sym_export_pragma, 7490), (sym_pou_pragma, 7194),
     (sym_direct_variable, 7675), (sym_deref_expression, 2373), (sym_variable, 7599),
     (sym_var_access, 2373), (sym_fb_body, 9005), (sym_method_decl, 3159), (sym_SFC, 7970),
     (sym_SFC_network, 7612), (sym_initial_step, 7439), (sym_variable_access, 7530),
     (sym_func_call, 2961), (sym_stmt_list, 7970), (sym__stmt, 2024), (sym_assign, 3150),
     (sym_if_stmt, 3150), (sym_case_stmt, 3150), (sym_for_stmt, 3150), (sym_while_stmt, 3150),
     (sym_repeat_stmt, 3150), (sym_raise_stmt, 3150), (sym_try_stmt, 3150),
     (sym_ERR_clause_outside_try, 3150), (sym_begin_path_expression, 2943), (sym_invocation, 2934),
     (sym_any_invocation, 2935), (sym_this_invocation, 2641), (sym_super_invocation, 2641),
     (sym_super_body_invocation, 2935), (sym_path_expression, 2627), (sym_field_expression, 2373),
     (sym_index_expression, 2373), (sym_ladder_diagram, 7970), (sym_fb_diagram, 7970),
     (aux_sym_func_decl_repeat1, 7194), (aux_sym_SFC_repeat1, 7612),
     (aux_sym_stmt_list_repeat1, 2024), (aux_sym_ladder_diagram_repeat1, 8009),
     (aux_sym_fb_diagram_repeat1, 8013), (sym_identifier, 298),
     (aux_sym_ERR_unexpected_this_in_path_token1, 304),
     (aux_sym_ERR_unexpected_super_in_path_token1, 306), (sym_line_comment, 3),
     (anon_sym_LBRACE, 308), (aux_sym_test_pragma_token1, 9), (aux_sym_once_pragma_token1, 11),
     (aux_sym_must_call_pragma_token1, 13), (aux_sym_export_pragma_token1, 15),
     (anon_sym_SEMI, 310), (anon_sym_PERCENT, 312), (aux_sym_fb_decl_token4, 3378),
     (aux_sym_method_decl_token1, 330), (aux_sym_initial_step_token1, 334),
     (aux_sym__stmt_token1, 340), (aux_sym__stmt_token2, 340), (aux_sym__stmt_token3, 340),
     (aux_sym_if_stmt_token1, 342), (aux_sym_case_stmt_token1, 344), (aux_sym_for_stmt_token1, 346),
     (aux_sym_while_stmt_token1, 348), (aux_sym_repeat_stmt_token1, 350),
     (aux_sym_raise_stmt_token1, 352), (aux_sym_try_stmt_token1, 354),
     (aux_sym_try_stmt_token2, 356), (aux_sym_catch_clause_token1, 356),
     (aux_sym_finally_clause_token1, 356), (sym_ld_rung, 358), (sym_fbd_network, 360),
     (sym_c_style_comment, 3), (sym_pascal_style_comment, 3), (sym_pragma, 3)]"

lemma ts_parse_row_1344_scan: "row_scan tokens_63_2 0 ts_parse_row_1344 = Some (Suc (Suc (Suc (Suc 0))))"
  unfolding ts_parse_row_1344_def by simp

text \<open>Lines 199463 to 199547.\<close>

definition ts_parse_row_1345 :: parse_row where
  "ts_parse_row_1345 =
    [(sym_ERR_assign_func_call, 7530), (sym_ERR_unexpected_this_in_path, 2372),
     (sym_ERR_unexpected_super_in_path, 2372), (sym_ERR_method_decl_in_body, 3150),
     (sym_extern_pragma, 7490), (sym_wasm_pragma, 3150), (sym_warn_pragma, 7490),
     (sym_allow_pragma, 3140), (sym_test_pragma, 7490), (sym_once_pragma, 7490),
     (sym_must_call_pragma, 7490), (sym_export_pragma, 7490), (sym_pou_pragma, 7194),
     (sym_direct_variable, 7675), (sym_deref_expression, 2373), (sym_variable, 7599),
     (sym_var_access, 2373), (sym_fb_body, 9010), (sym_method_decl, 3159), (sym_SFC, 7970),
     (sym_SFC_network, 7612), (sym_initial_step, 7439), (sym_variable_access, 7530),
     (sym_func_call, 2961), (sym_stmt_list, 7970), (sym__stmt, 2024), (sym_assign, 3150),
     (sym_if_stmt, 3150), (sym_case_stmt, 3150), (sym_for_stmt, 3150), (sym_while_stmt, 3150),
     (sym_repeat_stmt, 3150), (sym_raise_stmt, 3150), (sym_try_stmt, 3150),
     (sym_ERR_clause_outside_try, 3150), (sym_begin_path_expression, 2943), (sym_invocation, 2934),
     (sym_any_invocation, 2935), (sym_this_invocation, 2641), (sym_super_invocation, 2641),
     (sym_super_body_invocation, 2935), (sym_path_expression, 2627), (sym_field_expression, 2373),
     (sym_index_expression, 2373), (sym_ladder_diagram, 7970), (sym_fb_diagram, 7970),
     (aux_sym_func_decl_repeat1, 7194), (aux_sym_SFC_repeat1, 7612),
     (aux_sym_stmt_list_repeat1, 2024), (aux_sym_ladder_diagram_repeat1, 8009),
     (aux_sym_fb_diagram_repeat1, 8013), (sym_identifier, 298),
     (aux_sym_ERR_unexpected_this_in_path_token1, 304),
     (aux_sym_ERR_unexpected_super_in_path_token1, 306), (sym_line_comment, 3),
     (anon_sym_LBRACE, 308), (aux_sym_test_pragma_token1, 9), (aux_sym_once_pragma_token1, 11),
     (aux_sym_must_call_pragma_token1, 13), (aux_sym_export_pragma_token1, 15),
     (anon_sym_SEMI, 310), (anon_sym_PERCENT, 312), (aux_sym_fb_decl_token4, 590),
     (aux_sym_method_decl_token1, 330), (aux_sym_initial_step_token1, 334),
     (aux_sym__stmt_token1, 340), (aux_sym__stmt_token2, 340), (aux_sym__stmt_token3, 340),
     (aux_sym_if_stmt_token1, 342), (aux_sym_case_stmt_token1, 344), (aux_sym_for_stmt_token1, 346),
     (aux_sym_while_stmt_token1, 348), (aux_sym_repeat_stmt_token1, 350),
     (aux_sym_raise_stmt_token1, 352), (aux_sym_try_stmt_token1, 354),
     (aux_sym_try_stmt_token2, 356), (aux_sym_catch_clause_token1, 356),
     (aux_sym_finally_clause_token1, 356), (sym_ld_rung, 358), (sym_fbd_network, 360),
     (sym_c_style_comment, 3), (sym_pascal_style_comment, 3), (sym_pragma, 3)]"

lemma ts_parse_row_1345_scan: "row_scan tokens_63_2 0 ts_parse_row_1345 = Some (Suc (Suc (Suc (Suc 0))))"
  unfolding ts_parse_row_1345_def by simp

text \<open>Lines 199548 to 199632.\<close>

definition ts_parse_row_1346 :: parse_row where
  "ts_parse_row_1346 =
    [(sym_ERR_assign_func_call, 7530), (sym_ERR_unexpected_this_in_path, 2372),
     (sym_ERR_unexpected_super_in_path, 2372), (sym_ERR_method_decl_in_body, 3150),
     (sym_extern_pragma, 7490), (sym_wasm_pragma, 3150), (sym_warn_pragma, 7490),
     (sym_allow_pragma, 3140), (sym_test_pragma, 7490), (sym_once_pragma, 7490),
     (sym_must_call_pragma, 7490), (sym_export_pragma, 7490), (sym_pou_pragma, 7194),
     (sym_direct_variable, 7675), (sym_deref_expression, 2373), (sym_variable, 7599),
     (sym_var_access, 2373), (sym_fb_body, 9035), (sym_method_decl, 3159), (sym_SFC, 7970),
     (sym_SFC_network, 7612), (sym_initial_step, 7439), (sym_variable_access, 7530),
     (sym_func_call, 2961), (sym_stmt_list, 7970), (sym__stmt, 2024), (sym_assign, 3150),
     (sym_if_stmt, 3150), (sym_case_stmt, 3150), (sym_for_stmt, 3150), (sym_while_stmt, 3150),
     (sym_repeat_stmt, 3150), (sym_raise_stmt, 3150), (sym_try_stmt, 3150),
     (sym_ERR_clause_outside_try, 3150), (sym_begin_path_expression, 2943), (sym_invocation, 2934),
     (sym_any_invocation, 2935), (sym_this_invocation, 2641), (sym_super_invocation, 2641),
     (sym_super_body_invocation, 2935), (sym_path_expression, 2627), (sym_field_expression, 2373),
     (sym_index_expression, 2373), (sym_ladder_diagram, 7970), (sym_fb_diagram, 7970),
     (aux_sym_func_decl_repeat1, 7194), (aux_sym_SFC_repeat1, 7612),
     (aux_sym_stmt_list_repeat1, 2024), (aux_sym_ladder_diagram_repeat1, 8009),
     (aux_sym_fb_diagram_repeat1, 8013), (sym_identifier, 298),
     (aux_sym_ERR_unexpected_this_in_path_token1, 304),
     (aux_sym_ERR_unexpected_super_in_path_token1, 306), (sym_line_comment, 3),
     (anon_sym_LBRACE, 308), (aux_sym_test_pragma_token1, 9), (aux_sym_once_pragma_token1, 11),
     (aux_sym_must_call_pragma_token1, 13), (aux_sym_export_pragma_token1, 15),
     (anon_sym_SEMI, 310), (anon_sym_PERCENT, 312), (aux_sym_fb_decl_token4, 3380),
     (aux_sym_method_decl_token1, 330), (aux_sym_initial_step_token1, 334),
     (aux_sym__stmt_token1, 340), (aux_sym__stmt_token2, 340), (aux_sym__stmt_token3, 340),
     (aux_sym_if_stmt_token1, 342), (aux_sym_case_stmt_token1, 344), (aux_sym_for_stmt_token1, 346),
     (aux_sym_while_stmt_token1, 348), (aux_sym_repeat_stmt_token1, 350),
     (aux_sym_raise_stmt_token1, 352), (aux_sym_try_stmt_token1, 354),
     (aux_sym_try_stmt_token2, 356), (aux_sym_catch_clause_token1, 356),
     (aux_sym_finally_clause_token1, 356), (sym_ld_rung, 358), (sym_fbd_network, 360),
     (sym_c_style_comment, 3), (sym_pascal_style_comment, 3), (sym_pragma, 3)]"

lemma ts_parse_row_1346_scan: "row_scan tokens_63_2 0 ts_parse_row_1346 = Some (Suc (Suc (Suc (Suc 0))))"
  unfolding ts_parse_row_1346_def by simp

text \<open>Lines 199633 to 199717.\<close>

definition ts_parse_row_1347 :: parse_row where
  "ts_parse_row_1347 =
    [(sym_ERR_assign_func_call, 7530), (sym_ERR_unexpected_this_in_path, 2372),
     (sym_ERR_unexpected_super_in_path, 2372), (sym_ERR_method_decl_in_body, 3150),
     (sym_extern_pragma, 7490), (sym_wasm_pragma, 3150), (sym_warn_pragma, 7490),
     (sym_allow_pragma, 3140), (sym_test_pragma, 7490), (sym_once_pragma, 7490),
     (sym_must_call_pragma, 7490), (sym_export_pragma, 7490), (sym_pou_pragma, 7194),
     (sym_direct_variable, 7675), (sym_deref_expression, 2373), (sym_variable, 7599),
     (sym_var_access, 2373), (sym_fb_body, 9040), (sym_method_decl, 3159), (sym_SFC, 7970),
     (sym_SFC_network, 7612), (sym_initial_step, 7439), (sym_variable_access, 7530),
     (sym_func_call, 2961), (sym_stmt_list, 7970), (sym__stmt, 2024), (sym_assign, 3150),
     (sym_if_stmt, 3150), (sym_case_stmt, 3150), (sym_for_stmt, 3150), (sym_while_stmt, 3150),
     (sym_repeat_stmt, 3150), (sym_raise_stmt, 3150), (sym_try_stmt, 3150),
     (sym_ERR_clause_outside_try, 3150), (sym_begin_path_expression, 2943), (sym_invocation, 2934),
     (sym_any_invocation, 2935), (sym_this_invocation, 2641), (sym_super_invocation, 2641),
     (sym_super_body_invocation, 2935), (sym_path_expression, 2627), (sym_field_expression, 2373),
     (sym_index_expression, 2373), (sym_ladder_diagram, 7970), (sym_fb_diagram, 7970),
     (aux_sym_func_decl_repeat1, 7194), (aux_sym_SFC_repeat1, 7612),
     (aux_sym_stmt_list_repeat1, 2024), (aux_sym_ladder_diagram_repeat1, 8009),
     (aux_sym_fb_diagram_repeat1, 8013), (sym_identifier, 298),
     (aux_sym_ERR_unexpected_this_in_path_token1, 304),
     (aux_sym_ERR_unexpected_super_in_path_token1, 306), (sym_line_comment, 3),
     (anon_sym_LBRACE, 308), (aux_sym_test_pragma_token1, 9), (aux_sym_once_pragma_token1, 11),
     (aux_sym_must_call_pragma_token1, 13), (aux_sym_export_pragma_token1, 15),
     (anon_sym_SEMI, 310), (anon_sym_PERCENT, 312), (aux_sym_fb_decl_token4, 3382),
     (aux_sym_method_decl_token1, 330), (aux_sym_initial_step_token1, 334),
     (aux_sym__stmt_token1, 340), (aux_sym__stmt_token2, 340), (aux_sym__stmt_token3, 340),
     (aux_sym_if_stmt_token1, 342), (aux_sym_case_stmt_token1, 344), (aux_sym_for_stmt_token1, 346),
     (aux_sym_while_stmt_token1, 348), (aux_sym_repeat_stmt_token1, 350),
     (aux_sym_raise_stmt_token1, 352), (aux_sym_try_stmt_token1, 354),
     (aux_sym_try_stmt_token2, 356), (aux_sym_catch_clause_token1, 356),
     (aux_sym_finally_clause_token1, 356), (sym_ld_rung, 358), (sym_fbd_network, 360),
     (sym_c_style_comment, 3), (sym_pascal_style_comment, 3), (sym_pragma, 3)]"

lemma ts_parse_row_1347_scan: "row_scan tokens_63_2 0 ts_parse_row_1347 = Some (Suc (Suc (Suc (Suc 0))))"
  unfolding ts_parse_row_1347_def by simp

definition parse_rows_9 :: "parse_row list" where
  "parse_rows_9 =
    [ts_parse_row_1200, ts_parse_row_1201, ts_parse_row_1202, ts_parse_row_1203, ts_parse_row_1204,
     ts_parse_row_1205, ts_parse_row_1206, ts_parse_row_1207, ts_parse_row_1208, ts_parse_row_1209,
     ts_parse_row_1210, ts_parse_row_1211, ts_parse_row_1212, ts_parse_row_1213, ts_parse_row_1214,
     ts_parse_row_1215, ts_parse_row_1216, ts_parse_row_1217, ts_parse_row_1218, ts_parse_row_1219,
     ts_parse_row_1220, ts_parse_row_1221, ts_parse_row_1222, ts_parse_row_1223, ts_parse_row_1224,
     ts_parse_row_1225, ts_parse_row_1226, ts_parse_row_1227, ts_parse_row_1228, ts_parse_row_1229,
     ts_parse_row_1230, ts_parse_row_1231, ts_parse_row_1232, ts_parse_row_1233, ts_parse_row_1234,
     ts_parse_row_1235, ts_parse_row_1236, ts_parse_row_1237, ts_parse_row_1238, ts_parse_row_1239,
     ts_parse_row_1240, ts_parse_row_1241, ts_parse_row_1242, ts_parse_row_1243, ts_parse_row_1244,
     ts_parse_row_1245, ts_parse_row_1246, ts_parse_row_1247, ts_parse_row_1248, ts_parse_row_1249,
     ts_parse_row_1250, ts_parse_row_1251, ts_parse_row_1252, ts_parse_row_1253, ts_parse_row_1254,
     ts_parse_row_1255, ts_parse_row_1256, ts_parse_row_1257, ts_parse_row_1258, ts_parse_row_1259,
     ts_parse_row_1260, ts_parse_row_1261, ts_parse_row_1262, ts_parse_row_1263, ts_parse_row_1264,
     ts_parse_row_1265, ts_parse_row_1266, ts_parse_row_1267, ts_parse_row_1268, ts_parse_row_1269,
     ts_parse_row_1270, ts_parse_row_1271, ts_parse_row_1272, ts_parse_row_1273, ts_parse_row_1274,
     ts_parse_row_1275, ts_parse_row_1276, ts_parse_row_1277, ts_parse_row_1278, ts_parse_row_1279,
     ts_parse_row_1280, ts_parse_row_1281, ts_parse_row_1282, ts_parse_row_1283, ts_parse_row_1284,
     ts_parse_row_1285, ts_parse_row_1286, ts_parse_row_1287, ts_parse_row_1288, ts_parse_row_1289,
     ts_parse_row_1290, ts_parse_row_1291, ts_parse_row_1292, ts_parse_row_1293, ts_parse_row_1294,
     ts_parse_row_1295, ts_parse_row_1296, ts_parse_row_1297, ts_parse_row_1298, ts_parse_row_1299,
     ts_parse_row_1300, ts_parse_row_1301, ts_parse_row_1302, ts_parse_row_1303, ts_parse_row_1304,
     ts_parse_row_1305, ts_parse_row_1306, ts_parse_row_1307, ts_parse_row_1308, ts_parse_row_1309,
     ts_parse_row_1310, ts_parse_row_1311, ts_parse_row_1312, ts_parse_row_1313, ts_parse_row_1314,
     ts_parse_row_1315, ts_parse_row_1316, ts_parse_row_1317, ts_parse_row_1318, ts_parse_row_1319,
     ts_parse_row_1320, ts_parse_row_1321, ts_parse_row_1322, ts_parse_row_1323, ts_parse_row_1324,
     ts_parse_row_1325, ts_parse_row_1326, ts_parse_row_1327, ts_parse_row_1328, ts_parse_row_1329,
     ts_parse_row_1330, ts_parse_row_1331, ts_parse_row_1332, ts_parse_row_1333, ts_parse_row_1334,
     ts_parse_row_1335, ts_parse_row_1336, ts_parse_row_1337, ts_parse_row_1338, ts_parse_row_1339,
     ts_parse_row_1340, ts_parse_row_1341, ts_parse_row_1342, ts_parse_row_1343, ts_parse_row_1344,
     ts_parse_row_1345, ts_parse_row_1346, ts_parse_row_1347]"

lemmas parse_rows_9_scan =
  ts_parse_row_1200_scan ts_parse_row_1201_scan ts_parse_row_1202_scan ts_parse_row_1203_scan
  ts_parse_row_1204_scan ts_parse_row_1205_scan ts_parse_row_1206_scan ts_parse_row_1207_scan
  ts_parse_row_1208_scan ts_parse_row_1209_scan ts_parse_row_1210_scan ts_parse_row_1211_scan
  ts_parse_row_1212_scan ts_parse_row_1213_scan ts_parse_row_1214_scan ts_parse_row_1215_scan
  ts_parse_row_1216_scan ts_parse_row_1217_scan ts_parse_row_1218_scan ts_parse_row_1219_scan
  ts_parse_row_1220_scan ts_parse_row_1221_scan ts_parse_row_1222_scan ts_parse_row_1223_scan
  ts_parse_row_1224_scan ts_parse_row_1225_scan ts_parse_row_1226_scan ts_parse_row_1227_scan
  ts_parse_row_1228_scan ts_parse_row_1229_scan ts_parse_row_1230_scan ts_parse_row_1231_scan
  ts_parse_row_1232_scan ts_parse_row_1233_scan ts_parse_row_1234_scan ts_parse_row_1235_scan
  ts_parse_row_1236_scan ts_parse_row_1237_scan ts_parse_row_1238_scan ts_parse_row_1239_scan
  ts_parse_row_1240_scan ts_parse_row_1241_scan ts_parse_row_1242_scan ts_parse_row_1243_scan
  ts_parse_row_1244_scan ts_parse_row_1245_scan ts_parse_row_1246_scan ts_parse_row_1247_scan
  ts_parse_row_1248_scan ts_parse_row_1249_scan ts_parse_row_1250_scan ts_parse_row_1251_scan
  ts_parse_row_1252_scan ts_parse_row_1253_scan ts_parse_row_1254_scan ts_parse_row_1255_scan
  ts_parse_row_1256_scan ts_parse_row_1257_scan ts_parse_row_1258_scan ts_parse_row_1259_scan
  ts_parse_row_1260_scan ts_parse_row_1261_scan ts_parse_row_1262_scan ts_parse_row_1263_scan
  ts_parse_row_1264_scan ts_parse_row_1265_scan ts_parse_row_1266_scan ts_parse_row_1267_scan
  ts_parse_row_1268_scan ts_parse_row_1269_scan ts_parse_row_1270_scan ts_parse_row_1271_scan
  ts_parse_row_1272_scan ts_parse_row_1273_scan ts_parse_row_1274_scan ts_parse_row_1275_scan
  ts_parse_row_1276_scan ts_parse_row_1277_scan ts_parse_row_1278_scan ts_parse_row_1279_scan
  ts_parse_row_1280_scan ts_parse_row_1281_scan ts_parse_row_1282_scan ts_parse_row_1283_scan
  ts_parse_row_1284_scan ts_parse_row_1285_scan ts_parse_row_1286_scan ts_parse_row_1287_scan
  ts_parse_row_1288_scan ts_parse_row_1289_scan ts_parse_row_1290_scan ts_parse_row_1291_scan
  ts_parse_row_1292_scan ts_parse_row_1293_scan ts_parse_row_1294_scan ts_parse_row_1295_scan
  ts_parse_row_1296_scan ts_parse_row_1297_scan ts_parse_row_1298_scan ts_parse_row_1299_scan
  ts_parse_row_1300_scan ts_parse_row_1301_scan ts_parse_row_1302_scan ts_parse_row_1303_scan
  ts_parse_row_1304_scan ts_parse_row_1305_scan ts_parse_row_1306_scan ts_parse_row_1307_scan
  ts_parse_row_1308_scan ts_parse_row_1309_scan ts_parse_row_1310_scan ts_parse_row_1311_scan
  ts_parse_row_1312_scan ts_parse_row_1313_scan ts_parse_row_1314_scan ts_parse_row_1315_scan
  ts_parse_row_1316_scan ts_parse_row_1317_scan ts_parse_row_1318_scan ts_parse_row_1319_scan
  ts_parse_row_1320_scan ts_parse_row_1321_scan ts_parse_row_1322_scan ts_parse_row_1323_scan
  ts_parse_row_1324_scan ts_parse_row_1325_scan ts_parse_row_1326_scan ts_parse_row_1327_scan
  ts_parse_row_1328_scan ts_parse_row_1329_scan ts_parse_row_1330_scan ts_parse_row_1331_scan
  ts_parse_row_1332_scan ts_parse_row_1333_scan ts_parse_row_1334_scan ts_parse_row_1335_scan
  ts_parse_row_1336_scan ts_parse_row_1337_scan ts_parse_row_1338_scan ts_parse_row_1339_scan
  ts_parse_row_1340_scan ts_parse_row_1341_scan ts_parse_row_1342_scan ts_parse_row_1343_scan
  ts_parse_row_1344_scan ts_parse_row_1345_scan ts_parse_row_1346_scan ts_parse_row_1347_scan

end
