(* ===== verification/Parse_Modes.thy ===== *)
theory Parse_Modes
  imports Rk_Prelude
begin

text \<open>
  \<open>ts_lex_modes\<close> of \<open>src/crates/tree-sitter/src/parser.c\<close>: for each of the 10545 states of the parser,
  the state it starts \<open>ts_lex\<close> in, the row of \<open>ts_external_scanner_states\<close> it gives the external
  scanner, and its set of reserved words. The table is cut into parts of 150 lines of the source.
\<close>

text \<open>A field that an entry does not name is 0.\<close>

datatype TSLexerMode =
  Mode (lex_state: TSStateId) (external_lex_state: nat) (reserved_word_set_id: nat)

text \<open>Lines 39849 to 39998.\<close>

definition ts_lex_modes_1 :: "TSLexerMode list" where
  "ts_lex_modes_1 =
    [Mode 0 1 0, Mode 63 2 0, Mode 4 1 1, Mode 4 1 2, Mode 4 1 2, Mode 4 1 3, Mode 4 1 3,
     Mode 4 1 3, Mode 4 1 2, Mode 4 1 3, Mode 4 1 4, Mode 4 1 4, Mode 4 1 2, Mode 4 1 2, Mode 4 1 2,
     Mode 4 1 3, Mode 4 1 2, Mode 4 1 2, Mode 4 1 2, Mode 4 1 3, Mode 4 1 3, Mode 4 1 2, Mode 4 1 3,
     Mode 4 1 2, Mode 4 1 3, Mode 4 1 2, Mode 4 1 2, Mode 4 1 2, Mode 4 1 3, Mode 4 1 3, Mode 4 1 3,
     Mode 4 1 2, Mode 4 1 3, Mode 4 1 3, Mode 4 1 2, Mode 4 1 3, Mode 4 1 2, Mode 4 1 2, Mode 4 1 3,
     Mode 4 1 3, Mode 4 1 3, Mode 4 1 3, Mode 4 1 2, Mode 4 1 2, Mode 4 1 3, Mode 4 1 2, Mode 4 1 2,
     Mode 4 1 3, Mode 4 1 2, Mode 4 1 2, Mode 4 1 3, Mode 4 1 3, Mode 4 1 3, Mode 4 1 2, Mode 4 1 2,
     Mode 4 1 2, Mode 4 1 2, Mode 4 1 2, Mode 4 1 3, Mode 4 1 2, Mode 4 1 2, Mode 4 1 3, Mode 4 1 2,
     Mode 4 1 2, Mode 4 1 2, Mode 4 1 2, Mode 4 1 2, Mode 4 1 2, Mode 4 1 2, Mode 4 1 2, Mode 4 1 2,
     Mode 4 1 2, Mode 4 1 2, Mode 4 1 3, Mode 4 1 3, Mode 4 1 3, Mode 4 1 3, Mode 4 1 3, Mode 4 1 2,
     Mode 4 1 3, Mode 4 1 2, Mode 4 1 3, Mode 4 1 2, Mode 4 1 3, Mode 4 1 2, Mode 4 1 3, Mode 4 1 3,
     Mode 4 1 3, Mode 4 1 2, Mode 4 1 3, Mode 63 2 5, Mode 63 2 5, Mode 63 2 5, Mode 63 2 5,
     Mode 63 2 5, Mode 63 2 5, Mode 63 2 5, Mode 63 2 5, Mode 63 2 5, Mode 63 2 5, Mode 63 2 5,
     Mode 63 2 5, Mode 63 2 5, Mode 63 2 5, Mode 63 2 5, Mode 63 2 5, Mode 63 2 5, Mode 63 2 5,
     Mode 63 2 5, Mode 63 2 5, Mode 63 2 5, Mode 63 2 5, Mode 63 2 5, Mode 63 2 5, Mode 63 2 5,
     Mode 63 2 5, Mode 63 2 5, Mode 63 2 5, Mode 63 2 5, Mode 63 2 5, Mode 63 2 5, Mode 63 2 5,
     Mode 63 2 5, Mode 63 2 5, Mode 63 2 5, Mode 63 2 5, Mode 63 2 6, Mode 63 2 6, Mode 63 2 6,
     Mode 63 2 6, Mode 63 2 6, Mode 63 2 6, Mode 63 2 6, Mode 63 2 6, Mode 63 2 6, Mode 63 2 6,
     Mode 63 2 6, Mode 63 2 6, Mode 63 2 6, Mode 63 2 6, Mode 63 2 6, Mode 63 2 6, Mode 63 2 6,
     Mode 63 2 6, Mode 63 2 6, Mode 63 2 6, Mode 63 2 6, Mode 63 2 6, Mode 63 2 6, Mode 63 2 6]"

text \<open>Lines 39999 to 40148.\<close>

definition ts_lex_modes_2 :: "TSLexerMode list" where
  "ts_lex_modes_2 =
    [Mode 63 2 6, Mode 63 2 6, Mode 63 2 6, Mode 63 2 6, Mode 63 2 6, Mode 63 2 6, Mode 63 2 6,
     Mode 63 2 6, Mode 63 2 6, Mode 63 2 6, Mode 63 2 6, Mode 63 2 6, Mode 63 2 6, Mode 63 2 6,
     Mode 63 2 6, Mode 63 2 6, Mode 63 2 6, Mode 63 2 6, Mode 63 2 6, Mode 63 2 6, Mode 63 2 6,
     Mode 63 2 6, Mode 63 2 6, Mode 63 2 6, Mode 63 2 6, Mode 63 2 6, Mode 63 2 6, Mode 63 2 6,
     Mode 63 2 6, Mode 63 2 6, Mode 63 2 6, Mode 63 2 6, Mode 63 2 6, Mode 63 2 6, Mode 63 2 6,
     Mode 63 2 6, Mode 63 2 6, Mode 63 2 6, Mode 63 2 6, Mode 63 2 6, Mode 63 2 6, Mode 63 2 6,
     Mode 63 2 6, Mode 63 2 6, Mode 63 2 6, Mode 63 2 6, Mode 63 2 6, Mode 63 2 6, Mode 63 2 6,
     Mode 63 2 6, Mode 63 2 6, Mode 63 2 6, Mode 4 1 2, Mode 63 2 6, Mode 63 2 6, Mode 63 2 6,
     Mode 63 2 6, Mode 4 1 2, Mode 4 1 2, Mode 63 2 7, Mode 63 2 7, Mode 63 2 7, Mode 63 2 7,
     Mode 63 2 7, Mode 63 2 7, Mode 63 2 7, Mode 63 2 7, Mode 63 2 7, Mode 63 2 7, Mode 63 2 7,
     Mode 63 2 7, Mode 63 2 7, Mode 63 2 7, Mode 63 2 7, Mode 63 2 7, Mode 63 2 7, Mode 63 2 7,
     Mode 63 2 7, Mode 63 2 7, Mode 63 2 7, Mode 63 2 7, Mode 63 2 7, Mode 63 2 7, Mode 63 2 7,
     Mode 63 2 7, Mode 63 2 7, Mode 63 2 7, Mode 63 2 7, Mode 63 2 7, Mode 63 2 7, Mode 63 2 7,
     Mode 63 2 7, Mode 63 2 7, Mode 63 2 7, Mode 63 2 7, Mode 63 2 7, Mode 63 2 7, Mode 63 2 7,
     Mode 63 2 7, Mode 63 2 7, Mode 63 2 7, Mode 63 2 7, Mode 63 2 7, Mode 63 2 7, Mode 63 2 7,
     Mode 63 2 7, Mode 63 2 7, Mode 63 2 7, Mode 63 2 7, Mode 63 2 7, Mode 63 2 7, Mode 63 2 7,
     Mode 63 2 7, Mode 63 2 7, Mode 63 2 7, Mode 63 2 7, Mode 63 2 7, Mode 63 2 7, Mode 63 2 7,
     Mode 63 2 7, Mode 63 2 7, Mode 63 2 7, Mode 63 2 7, Mode 63 2 7, Mode 63 2 7, Mode 63 2 7,
     Mode 63 2 7, Mode 63 2 7, Mode 63 2 7, Mode 63 2 7, Mode 63 2 7, Mode 63 2 7, Mode 63 2 7,
     Mode 63 2 7, Mode 63 2 7, Mode 63 2 7, Mode 63 2 7, Mode 63 2 7, Mode 63 2 7, Mode 63 2 7,
     Mode 63 2 7, Mode 63 2 7, Mode 63 2 7, Mode 63 2 7, Mode 63 2 7, Mode 63 2 7, Mode 63 2 7,
     Mode 63 2 7, Mode 63 2 7, Mode 63 2 7]"

text \<open>Lines 40149 to 40298.\<close>

definition ts_lex_modes_3 :: "TSLexerMode list" where
  "ts_lex_modes_3 =
    [Mode 63 2 7, Mode 63 2 7, Mode 63 2 7, Mode 63 2 7, Mode 63 2 7, Mode 63 2 8, Mode 63 2 8,
     Mode 63 2 8, Mode 63 2 8, Mode 63 2 8, Mode 63 2 8, Mode 63 2 8, Mode 63 2 8, Mode 63 2 8,
     Mode 63 2 8, Mode 63 2 8, Mode 63 2 8, Mode 63 2 8, Mode 63 2 8, Mode 63 2 8, Mode 63 2 8,
     Mode 63 2 8, Mode 63 2 8, Mode 63 2 8, Mode 63 2 8, Mode 63 2 8, Mode 63 2 8, Mode 63 2 8,
     Mode 63 2 8, Mode 63 2 8, Mode 63 2 8, Mode 63 2 8, Mode 63 2 8, Mode 63 2 8, Mode 63 2 8,
     Mode 63 2 8, Mode 63 2 8, Mode 63 2 8, Mode 63 2 8, Mode 63 2 8, Mode 63 2 8, Mode 63 2 8,
     Mode 63 2 8, Mode 63 2 8, Mode 63 2 8, Mode 63 2 8, Mode 63 2 8, Mode 63 2 8, Mode 63 2 8,
     Mode 63 2 8, Mode 63 2 8, Mode 63 2 8, Mode 63 2 8, Mode 63 2 8, Mode 63 2 8, Mode 63 2 8,
     Mode 63 2 8, Mode 63 2 8, Mode 63 2 8, Mode 63 2 8, Mode 63 2 8, Mode 63 2 8, Mode 63 2 8,
     Mode 63 2 8, Mode 63 2 8, Mode 63 2 8, Mode 63 2 8, Mode 63 2 8, Mode 63 2 8, Mode 63 2 8,
     Mode 63 2 8, Mode 63 2 8, Mode 63 2 8, Mode 63 2 8, Mode 63 2 8, Mode 63 2 8, Mode 63 2 8,
     Mode 63 2 8, Mode 63 2 8, Mode 63 2 8, Mode 63 2 8, Mode 63 2 8, Mode 63 2 8, Mode 63 2 8,
     Mode 63 2 8, Mode 63 2 8, Mode 63 2 8, Mode 63 2 8, Mode 63 2 8, Mode 63 2 8, Mode 63 2 8,
     Mode 63 2 8, Mode 63 2 8, Mode 63 2 8, Mode 63 2 8, Mode 63 2 8, Mode 63 2 8, Mode 63 2 8,
     Mode 63 2 8, Mode 63 2 8, Mode 63 2 8, Mode 63 2 8, Mode 63 2 8, Mode 63 2 8, Mode 63 2 8,
     Mode 63 2 8, Mode 63 2 8, Mode 63 2 8, Mode 63 2 8, Mode 63 2 8, Mode 63 2 8, Mode 63 2 8,
     Mode 63 2 8, Mode 63 2 8, Mode 63 2 8, Mode 63 2 8, Mode 63 2 8, Mode 63 2 8, Mode 63 2 8,
     Mode 63 2 8, Mode 63 2 8, Mode 63 2 8, Mode 63 2 8, Mode 63 2 8, Mode 63 2 8, Mode 63 2 8,
     Mode 63 2 8, Mode 63 2 8, Mode 63 2 8, Mode 63 2 8, Mode 63 2 8, Mode 63 2 8, Mode 63 2 8,
     Mode 63 2 8, Mode 63 2 8, Mode 63 2 8, Mode 63 2 8, Mode 63 2 8, Mode 63 2 8, Mode 63 2 8,
     Mode 63 2 8, Mode 63 2 8, Mode 63 2 8, Mode 63 2 8, Mode 63 2 8, Mode 63 2 8, Mode 63 2 8,
     Mode 63 2 8, Mode 63 2 8, Mode 63 2 8]"

text \<open>Lines 40299 to 40448.\<close>

definition ts_lex_modes_4 :: "TSLexerMode list" where
  "ts_lex_modes_4 =
    [Mode 63 2 8, Mode 63 2 8, Mode 63 2 8, Mode 63 2 8, Mode 63 2 8, Mode 63 2 8, Mode 63 2 8,
     Mode 63 2 8, Mode 63 2 8, Mode 63 2 8, Mode 63 2 8, Mode 63 2 8, Mode 63 2 8, Mode 63 2 8,
     Mode 63 2 8, Mode 63 2 8, Mode 63 2 8, Mode 63 2 8, Mode 63 2 8, Mode 63 2 8, Mode 63 2 8,
     Mode 63 2 8, Mode 63 2 8, Mode 63 2 8, Mode 63 2 8, Mode 63 2 8, Mode 63 2 8, Mode 63 2 8,
     Mode 63 2 8, Mode 63 2 8, Mode 63 2 8, Mode 63 2 8, Mode 63 2 8, Mode 63 2 8, Mode 63 2 8,
     Mode 63 2 8, Mode 63 2 8, Mode 63 2 8, Mode 63 2 8, Mode 63 2 8, Mode 63 2 8, Mode 63 2 8,
     Mode 63 2 8, Mode 63 2 8, Mode 63 2 8, Mode 63 2 8, Mode 63 2 8, Mode 63 2 8, Mode 63 2 8,
     Mode 63 2 8, Mode 63 2 8, Mode 63 2 8, Mode 63 2 8, Mode 63 2 8, Mode 63 2 8, Mode 63 2 8,
     Mode 63 2 8, Mode 63 2 8, Mode 63 2 8, Mode 63 2 8, Mode 63 2 8, Mode 63 2 8, Mode 63 2 8,
     Mode 63 2 8, Mode 63 2 8, Mode 63 2 8, Mode 63 2 8, Mode 63 2 8, Mode 63 2 8, Mode 63 2 8,
     Mode 63 2 8, Mode 63 2 8, Mode 63 2 8, Mode 63 2 8, Mode 63 2 8, Mode 63 2 8, Mode 63 2 8,
     Mode 63 2 8, Mode 63 2 8, Mode 63 2 8, Mode 63 2 8, Mode 63 2 8, Mode 63 2 8, Mode 63 2 8,
     Mode 63 2 8, Mode 63 2 8, Mode 63 2 8, Mode 63 2 8, Mode 63 2 8, Mode 63 2 8, Mode 63 2 8,
     Mode 63 2 8, Mode 63 2 8, Mode 63 2 8, Mode 63 2 8, Mode 63 2 8, Mode 63 2 8, Mode 63 2 8,
     Mode 63 2 8, Mode 63 2 8, Mode 63 2 8, Mode 63 2 8, Mode 63 2 8, Mode 63 2 8, Mode 63 2 8,
     Mode 63 2 8, Mode 63 2 8, Mode 63 2 8, Mode 63 2 8, Mode 63 2 8, Mode 63 2 8, Mode 63 2 8,
     Mode 63 2 8, Mode 63 2 8, Mode 63 2 8, Mode 63 2 8, Mode 63 2 8, Mode 63 2 8, Mode 63 2 8,
     Mode 63 2 8, Mode 63 2 8, Mode 63 2 8, Mode 63 2 8, Mode 63 2 8, Mode 63 2 8, Mode 63 2 8,
     Mode 63 2 8, Mode 63 2 8, Mode 63 2 8, Mode 63 2 8, Mode 63 2 8, Mode 63 2 8, Mode 63 2 8,
     Mode 63 2 8, Mode 63 2 8, Mode 63 2 8, Mode 63 2 8, Mode 63 2 8, Mode 63 2 8, Mode 63 2 8,
     Mode 63 2 8, Mode 63 2 8, Mode 63 2 8, Mode 63 2 8, Mode 63 2 8, Mode 63 2 8, Mode 63 2 8,
     Mode 63 2 8, Mode 63 2 8, Mode 63 2 8]"

text \<open>Lines 40449 to 40598.\<close>

definition ts_lex_modes_5 :: "TSLexerMode list" where
  "ts_lex_modes_5 =
    [Mode 63 2 8, Mode 63 2 8, Mode 63 2 8, Mode 63 2 8, Mode 63 2 8, Mode 63 2 8, Mode 63 2 8,
     Mode 63 2 8, Mode 63 2 8, Mode 63 2 8, Mode 63 2 8, Mode 63 2 8, Mode 63 2 8, Mode 63 2 8,
     Mode 63 2 8, Mode 63 2 8, Mode 63 2 8, Mode 63 2 8, Mode 63 2 8, Mode 63 2 8, Mode 63 2 8,
     Mode 63 2 8, Mode 63 2 8, Mode 63 2 8, Mode 63 2 8, Mode 63 2 8, Mode 63 2 8, Mode 63 2 8,
     Mode 63 2 8, Mode 63 2 8, Mode 63 2 8, Mode 63 2 8, Mode 63 2 8, Mode 63 2 8, Mode 63 2 8,
     Mode 63 2 8, Mode 63 2 8, Mode 63 2 8, Mode 63 2 8, Mode 63 2 8, Mode 63 2 8, Mode 63 2 8,
     Mode 63 2 8, Mode 63 2 8, Mode 63 2 8, Mode 63 2 8, Mode 63 2 8, Mode 63 2 8, Mode 63 2 8,
     Mode 63 2 8, Mode 63 2 8, Mode 63 2 8, Mode 63 2 8, Mode 63 2 8, Mode 63 2 8, Mode 63 2 8,
     Mode 63 2 8, Mode 63 2 8, Mode 63 2 8, Mode 63 2 8, Mode 63 2 8, Mode 63 2 8, Mode 63 2 8,
     Mode 63 2 8, Mode 63 2 8, Mode 63 2 8, Mode 63 2 8, Mode 63 2 8, Mode 63 2 8, Mode 63 2 8,
     Mode 63 2 8, Mode 63 2 8, Mode 63 2 8, Mode 63 2 8, Mode 63 2 8, Mode 63 2 8, Mode 63 2 8,
     Mode 63 2 8, Mode 63 2 8, Mode 63 2 8, Mode 63 2 8, Mode 63 2 8, Mode 63 2 8, Mode 63 2 8,
     Mode 63 2 8, Mode 63 2 8, Mode 63 2 8, Mode 63 2 8, Mode 63 2 8, Mode 63 2 8, Mode 63 2 8,
     Mode 63 2 8, Mode 63 2 8, Mode 63 2 8, Mode 63 2 8, Mode 63 2 8, Mode 63 2 8, Mode 63 2 8,
     Mode 63 2 8, Mode 63 2 8, Mode 63 2 8, Mode 63 2 8, Mode 63 2 8, Mode 63 2 8, Mode 63 2 8,
     Mode 63 2 8, Mode 63 2 8, Mode 63 2 8, Mode 63 2 8, Mode 63 2 8, Mode 63 2 8, Mode 63 2 8,
     Mode 63 2 8, Mode 63 2 8, Mode 63 2 8, Mode 63 2 8, Mode 63 2 8, Mode 63 2 8, Mode 63 2 8,
     Mode 63 2 8, Mode 63 2 8, Mode 63 2 8, Mode 63 2 8, Mode 63 2 8, Mode 63 2 8, Mode 63 2 8,
     Mode 63 2 8, Mode 63 2 8, Mode 63 2 8, Mode 63 2 8, Mode 63 2 8, Mode 63 2 8, Mode 63 2 8,
     Mode 63 2 8, Mode 63 2 8, Mode 63 2 8, Mode 63 2 8, Mode 63 2 8, Mode 63 2 8, Mode 63 2 8,
     Mode 63 2 8, Mode 63 2 8, Mode 63 2 8, Mode 63 2 8, Mode 63 2 8, Mode 63 2 8, Mode 63 2 8,
     Mode 63 2 8, Mode 63 2 8, Mode 63 2 8]"

text \<open>Lines 40599 to 40748.\<close>

definition ts_lex_modes_6 :: "TSLexerMode list" where
  "ts_lex_modes_6 =
    [Mode 63 2 8, Mode 63 2 8, Mode 63 2 8, Mode 63 2 8, Mode 63 2 8, Mode 63 2 8, Mode 63 2 8,
     Mode 63 2 8, Mode 63 2 8, Mode 63 2 8, Mode 63 2 8, Mode 63 2 8, Mode 63 2 8, Mode 63 2 8,
     Mode 63 2 8, Mode 63 2 8, Mode 63 2 8, Mode 63 2 8, Mode 63 2 8, Mode 63 2 8, Mode 63 2 8,
     Mode 63 2 8, Mode 63 2 8, Mode 63 2 8, Mode 63 2 8, Mode 63 2 8, Mode 63 2 8, Mode 63 2 8,
     Mode 63 2 8, Mode 63 2 8, Mode 63 2 8, Mode 63 2 8, Mode 63 2 8, Mode 63 2 8, Mode 63 2 8,
     Mode 63 2 8, Mode 63 2 8, Mode 63 2 8, Mode 63 2 8, Mode 63 2 8, Mode 63 2 8, Mode 63 2 8,
     Mode 63 2 8, Mode 63 2 8, Mode 63 2 8, Mode 63 2 8, Mode 63 2 8, Mode 63 2 8, Mode 63 2 8,
     Mode 63 2 8, Mode 63 2 8, Mode 63 2 8, Mode 63 2 8, Mode 63 2 8, Mode 63 2 8, Mode 63 2 8,
     Mode 63 2 8, Mode 63 2 8, Mode 63 2 8, Mode 63 2 8, Mode 63 2 8, Mode 63 2 8, Mode 63 2 8,
     Mode 63 2 8, Mode 63 2 8, Mode 63 2 8, Mode 63 2 8, Mode 63 2 8, Mode 63 2 8, Mode 63 2 8,
     Mode 63 2 8, Mode 63 2 8, Mode 63 2 8, Mode 63 2 8, Mode 63 2 8, Mode 63 2 8, Mode 63 2 8,
     Mode 63 2 8, Mode 63 2 8, Mode 63 2 8, Mode 63 2 8, Mode 63 2 8, Mode 63 2 8, Mode 63 2 8,
     Mode 63 2 8, Mode 63 2 8, Mode 63 2 8, Mode 63 2 8, Mode 63 2 8, Mode 63 2 8, Mode 63 2 8,
     Mode 63 2 8, Mode 63 2 8, Mode 63 2 8, Mode 63 2 8, Mode 63 2 8, Mode 63 2 8, Mode 63 2 8,
     Mode 63 2 8, Mode 63 2 8, Mode 63 2 8, Mode 63 2 8, Mode 63 2 8, Mode 63 2 8, Mode 63 2 8,
     Mode 63 2 8, Mode 63 2 8, Mode 63 2 8, Mode 63 2 8, Mode 63 2 8, Mode 63 2 8, Mode 63 2 8,
     Mode 63 2 8, Mode 63 2 8, Mode 63 2 8, Mode 63 2 8, Mode 63 2 8, Mode 63 2 8, Mode 63 2 8,
     Mode 63 2 8, Mode 63 2 8, Mode 63 2 8, Mode 63 2 8, Mode 63 2 8, Mode 63 2 8, Mode 63 2 8,
     Mode 63 2 8, Mode 63 2 8, Mode 63 2 8, Mode 63 2 8, Mode 63 2 8, Mode 63 2 9, Mode 63 2 9,
     Mode 63 2 9, Mode 63 2 9, Mode 63 2 9, Mode 63 2 9, Mode 63 2 9, Mode 63 2 9, Mode 63 2 9,
     Mode 63 2 9, Mode 63 2 9, Mode 63 2 9, Mode 63 2 9, Mode 63 2 9, Mode 63 2 9, Mode 63 2 9,
     Mode 63 2 10, Mode 63 2 10, Mode 63 2 10]"

text \<open>Lines 40749 to 40898.\<close>

definition ts_lex_modes_7 :: "TSLexerMode list" where
  "ts_lex_modes_7 =
    [Mode 63 2 10, Mode 63 2 2, Mode 63 2 11, Mode 63 2 11, Mode 63 2 11, Mode 63 2 11,
     Mode 63 2 11, Mode 63 2 11, Mode 63 2 11, Mode 63 2 11, Mode 63 2 11, Mode 63 2 11,
     Mode 63 2 11, Mode 63 2 11, Mode 63 2 11, Mode 63 2 2, Mode 63 2 2, Mode 63 2 2, Mode 63 2 2,
     Mode 63 2 2, Mode 63 2 2, Mode 63 2 11, Mode 63 2 2, Mode 63 2 2, Mode 63 2 2, Mode 63 2 2,
     Mode 63 2 2, Mode 63 2 2, Mode 63 2 2, Mode 63 2 2, Mode 63 2 2, Mode 63 2 2, Mode 63 2 2,
     Mode 63 2 2, Mode 63 2 2, Mode 63 2 2, Mode 63 2 2, Mode 63 2 2, Mode 63 2 2, Mode 63 2 2,
     Mode 63 2 2, Mode 63 2 11, Mode 63 2 2, Mode 63 2 2, Mode 63 2 2, Mode 63 2 2, Mode 63 2 2,
     Mode 63 2 11, Mode 63 2 2, Mode 63 2 2, Mode 63 2 11, Mode 63 2 12, Mode 63 2 12, Mode 63 2 11,
     Mode 63 2 11, Mode 63 2 11, Mode 63 2 11, Mode 63 2 12, Mode 63 2 11, Mode 63 2 11,
     Mode 63 2 11, Mode 63 2 12, Mode 63 2 12, Mode 63 2 12, Mode 63 2 11, Mode 63 2 11,
     Mode 63 2 11, Mode 63 2 11, Mode 63 2 11, Mode 63 2 11, Mode 63 2 11, Mode 63 2 11,
     Mode 63 2 11, Mode 63 2 2, Mode 63 2 11, Mode 63 2 12, Mode 63 2 11, Mode 63 2 2, Mode 63 2 2,
     Mode 63 2 2, Mode 63 2 11, Mode 63 2 12, Mode 63 2 2, Mode 63 2 12, Mode 63 2 12, Mode 63 2 2,
     Mode 63 2 11, Mode 63 2 2, Mode 63 2 2, Mode 63 2 11, Mode 63 2 2, Mode 63 2 11, Mode 63 2 2,
     Mode 63 2 2, Mode 63 2 2, Mode 63 2 11, Mode 63 2 2, Mode 63 2 2, Mode 63 2 2, Mode 63 2 11,
     Mode 63 2 11, Mode 63 2 2, Mode 63 2 2, Mode 63 2 2, Mode 63 2 2, Mode 63 2 2, Mode 63 2 2,
     Mode 63 2 2, Mode 63 2 2, Mode 63 2 2, Mode 63 2 2, Mode 63 2 2, Mode 63 2 2, Mode 63 2 11,
     Mode 63 2 2, Mode 63 2 2, Mode 63 2 2, Mode 63 2 2, Mode 63 2 2, Mode 63 2 2, Mode 63 2 2,
     Mode 63 2 2, Mode 63 2 2, Mode 63 2 2, Mode 63 2 2, Mode 63 2 2, Mode 63 2 2, Mode 63 2 2,
     Mode 63 2 2, Mode 63 2 2, Mode 63 2 2, Mode 63 2 2, Mode 63 2 2, Mode 63 2 2, Mode 63 2 11,
     Mode 63 2 11, Mode 63 2 11, Mode 63 2 2, Mode 63 2 11, Mode 63 2 11, Mode 63 2 11, Mode 63 2 2,
     Mode 63 2 2, Mode 63 2 2, Mode 63 2 12, Mode 63 2 12, Mode 63 2 2, Mode 63 2 11, Mode 63 2 12,
     Mode 63 2 2]"

text \<open>Lines 40899 to 41048.\<close>

definition ts_lex_modes_8 :: "TSLexerMode list" where
  "ts_lex_modes_8 =
    [Mode 63 2 12, Mode 63 2 2, Mode 63 2 2, Mode 63 2 2, Mode 63 2 2, Mode 63 2 2, Mode 63 2 2,
     Mode 63 2 2, Mode 63 2 2, Mode 63 2 2, Mode 63 2 2, Mode 63 2 12, Mode 63 2 11, Mode 63 2 2,
     Mode 63 2 2, Mode 63 2 2, Mode 63 2 2, Mode 63 2 2, Mode 63 2 2, Mode 63 2 2, Mode 63 2 2,
     Mode 63 2 2, Mode 63 2 2, Mode 63 2 2, Mode 63 2 2, Mode 63 2 11, Mode 63 2 2, Mode 63 2 2,
     Mode 63 2 2, Mode 63 2 2, Mode 63 2 11, Mode 63 2 2, Mode 63 2 2, Mode 63 2 2, Mode 63 2 2,
     Mode 63 2 2, Mode 63 2 2, Mode 63 2 2, Mode 63 2 2, Mode 63 2 2, Mode 63 2 2, Mode 63 2 2,
     Mode 63 2 2, Mode 63 2 2, Mode 63 2 2, Mode 63 2 2, Mode 63 2 11, Mode 63 2 11, Mode 63 2 11,
     Mode 63 2 11, Mode 63 2 11, Mode 63 2 11, Mode 63 2 11, Mode 63 2 11, Mode 63 2 11,
     Mode 63 2 11, Mode 63 2 11, Mode 63 2 12, Mode 63 2 2, Mode 2 1 2, Mode 1 1 2, Mode 2 1 2,
     Mode 2 1 2, Mode 2 1 2, Mode 2 1 2, Mode 2 1 2, Mode 2 1 2, Mode 2 1 2, Mode 2 1 2, Mode 2 1 2,
     Mode 2 1 2, Mode 2 1 2, Mode 2 1 2, Mode 2 1 2, Mode 2 1 2, Mode 2 1 2, Mode 2 1 2, Mode 2 1 2,
     Mode 2 1 2, Mode 2 1 2, Mode 2 1 2, Mode 2 1 2, Mode 2 1 2, Mode 2 1 2, Mode 2 1 2, Mode 2 1 2,
     Mode 2 1 2, Mode 2 1 2, Mode 2 1 2, Mode 2 1 2, Mode 2 1 2, Mode 2 1 2, Mode 2 1 2, Mode 2 1 2,
     Mode 2 1 2, Mode 2 1 2, Mode 2 1 2, Mode 2 1 2, Mode 2 1 2, Mode 2 1 2, Mode 2 1 2, Mode 2 1 2,
     Mode 2 1 2, Mode 2 1 2, Mode 2 1 2, Mode 2 1 2, Mode 2 1 2, Mode 2 1 2, Mode 2 1 2, Mode 2 1 2,
     Mode 2 1 2, Mode 2 1 2, Mode 2 1 2, Mode 2 1 2, Mode 2 1 2, Mode 2 1 2, Mode 2 1 2, Mode 2 1 2,
     Mode 2 1 2, Mode 2 1 2, Mode 2 1 2, Mode 2 1 2, Mode 2 1 2, Mode 2 1 2, Mode 2 1 2, Mode 2 1 2,
     Mode 2 1 2, Mode 2 1 2, Mode 2 1 2, Mode 2 1 2, Mode 2 1 2, Mode 2 1 2, Mode 2 1 2, Mode 2 1 2,
     Mode 2 1 2, Mode 2 1 2, Mode 2 1 2, Mode 2 1 2, Mode 2 1 2, Mode 2 1 2, Mode 2 1 2, Mode 2 1 2,
     Mode 2 1 2, Mode 2 1 2, Mode 2 1 2, Mode 2 1 2, Mode 2 1 2, Mode 2 1 2, Mode 2 1 2, Mode 2 1 2]"

text \<open>Lines 41049 to 41198.\<close>

definition ts_lex_modes_9 :: "TSLexerMode list" where
  "ts_lex_modes_9 =
    [Mode 2 1 2, Mode 2 1 2, Mode 2 1 2, Mode 2 1 2, Mode 2 1 2, Mode 2 1 2, Mode 2 1 2, Mode 2 1 2,
     Mode 2 1 2, Mode 2 1 2, Mode 2 1 2, Mode 2 1 2, Mode 2 1 2, Mode 2 1 2, Mode 2 1 2, Mode 2 1 2,
     Mode 2 1 2, Mode 2 1 2, Mode 4 2 13, Mode 4 2 2, Mode 4 2 13, Mode 4 2 13, Mode 4 2 2,
     Mode 4 2 2, Mode 4 2 2, Mode 63 2 14, Mode 63 2 14, Mode 63 2 14, Mode 63 2 14, Mode 63 2 14,
     Mode 63 2 14, Mode 63 2 14, Mode 63 2 14, Mode 63 2 14, Mode 63 2 14, Mode 63 2 14,
     Mode 63 2 14, Mode 63 2 14, Mode 63 2 14, Mode 63 2 14, Mode 63 2 14, Mode 63 2 14,
     Mode 63 2 14, Mode 63 2 14, Mode 63 2 14, Mode 63 2 14, Mode 63 2 14, Mode 63 2 14,
     Mode 63 2 14, Mode 63 2 14, Mode 63 2 14, Mode 63 2 14, Mode 63 2 14, Mode 63 2 14,
     Mode 63 2 14, Mode 63 2 14, Mode 63 2 14, Mode 63 2 14, Mode 63 2 14, Mode 63 2 14,
     Mode 63 2 14, Mode 63 2 14, Mode 63 2 14, Mode 63 2 14, Mode 63 2 14, Mode 63 2 14,
     Mode 63 2 14, Mode 63 2 14, Mode 63 2 14, Mode 63 2 14, Mode 63 2 14, Mode 63 2 14,
     Mode 63 2 14, Mode 63 2 14, Mode 63 2 14, Mode 63 2 14, Mode 63 2 14, Mode 63 2 14,
     Mode 63 2 14, Mode 63 2 14, Mode 63 2 14, Mode 63 2 14, Mode 63 2 14, Mode 63 2 14,
     Mode 63 2 14, Mode 63 2 14, Mode 63 2 14, Mode 63 2 14, Mode 63 2 14, Mode 63 2 14,
     Mode 63 2 14, Mode 63 2 14, Mode 63 2 14, Mode 63 2 14, Mode 63 2 14, Mode 63 2 14,
     Mode 63 2 14, Mode 63 2 14, Mode 63 2 14, Mode 63 2 14, Mode 63 2 14, Mode 63 2 14,
     Mode 63 2 14, Mode 63 2 14, Mode 63 2 14, Mode 63 2 14, Mode 63 2 14, Mode 63 2 14,
     Mode 63 2 14, Mode 63 2 14, Mode 63 2 14, Mode 63 2 14, Mode 63 2 14, Mode 63 2 14,
     Mode 63 2 14, Mode 63 2 14, Mode 63 2 14, Mode 63 2 14, Mode 63 2 14, Mode 63 2 14,
     Mode 63 2 14, Mode 63 2 14, Mode 63 2 14, Mode 63 2 14, Mode 63 2 14, Mode 63 2 14,
     Mode 63 2 14, Mode 63 2 14, Mode 63 2 14, Mode 63 2 14, Mode 63 2 14, Mode 63 2 14,
     Mode 63 2 14, Mode 63 2 14, Mode 63 2 14, Mode 63 2 14, Mode 63 2 14, Mode 63 2 14,
     Mode 63 2 14, Mode 63 2 14, Mode 63 2 14, Mode 63 2 14, Mode 63 2 14, Mode 63 2 14,
     Mode 63 2 14, Mode 63 2 14, Mode 63 2 14, Mode 63 2 14, Mode 63 2 14, Mode 63 2 14]"

text \<open>Lines 41199 to 41348.\<close>

definition ts_lex_modes_10 :: "TSLexerMode list" where
  "ts_lex_modes_10 =
    [Mode 63 2 14, Mode 63 2 14, Mode 63 2 14, Mode 63 2 14, Mode 63 2 14, Mode 63 2 14,
     Mode 63 2 14, Mode 63 2 14, Mode 63 2 14, Mode 63 2 14, Mode 63 2 14, Mode 63 2 14,
     Mode 63 2 14, Mode 63 2 14, Mode 63 2 14, Mode 63 2 14, Mode 63 2 14, Mode 63 2 14,
     Mode 63 2 14, Mode 63 2 14, Mode 63 2 14, Mode 63 2 14, Mode 63 2 14, Mode 63 2 14,
     Mode 63 2 14, Mode 63 2 14, Mode 63 2 14, Mode 63 2 14, Mode 63 2 14, Mode 63 2 14,
     Mode 63 2 14, Mode 63 2 14, Mode 63 2 14, Mode 63 2 14, Mode 63 2 14, Mode 63 2 14,
     Mode 63 2 14, Mode 63 2 14, Mode 63 2 14, Mode 63 2 14, Mode 63 2 14, Mode 63 2 14,
     Mode 63 2 14, Mode 63 2 14, Mode 63 2 14, Mode 63 2 14, Mode 63 2 14, Mode 63 2 14,
     Mode 63 2 14, Mode 63 2 14, Mode 63 2 14, Mode 63 2 14, Mode 63 2 14, Mode 63 2 14,
     Mode 63 2 14, Mode 63 2 14, Mode 63 2 14, Mode 63 2 14, Mode 63 2 14, Mode 63 2 14,
     Mode 63 2 14, Mode 63 2 14, Mode 63 2 14, Mode 63 2 14, Mode 63 2 14, Mode 63 2 14,
     Mode 63 2 14, Mode 63 2 14, Mode 63 2 14, Mode 63 2 14, Mode 63 2 14, Mode 63 2 14,
     Mode 63 2 14, Mode 63 2 14, Mode 63 2 14, Mode 63 2 14, Mode 63 2 14, Mode 63 2 14,
     Mode 63 2 14, Mode 63 2 14, Mode 63 2 14, Mode 63 2 14, Mode 63 2 14, Mode 63 2 14,
     Mode 63 2 14, Mode 63 2 14, Mode 63 2 14, Mode 63 2 14, Mode 63 2 14, Mode 63 2 14,
     Mode 63 2 14, Mode 63 2 14, Mode 63 2 14, Mode 63 2 14, Mode 63 2 14, Mode 63 2 14,
     Mode 63 2 14, Mode 63 2 14, Mode 63 2 14, Mode 63 2 14, Mode 63 2 14, Mode 63 2 14,
     Mode 63 2 14, Mode 63 2 14, Mode 63 2 14, Mode 63 2 14, Mode 63 2 14, Mode 63 2 14,
     Mode 63 2 14, Mode 63 2 14, Mode 63 2 14, Mode 63 2 14, Mode 63 2 14, Mode 63 2 14,
     Mode 63 2 14, Mode 63 2 14, Mode 63 2 14, Mode 63 2 14, Mode 63 2 14, Mode 63 2 14,
     Mode 63 2 14, Mode 63 2 14, Mode 63 2 14, Mode 63 2 14, Mode 63 2 14, Mode 63 2 14,
     Mode 63 2 14, Mode 63 2 14, Mode 63 2 14, Mode 63 2 14, Mode 63 2 14, Mode 63 2 14,
     Mode 63 2 14, Mode 63 2 14, Mode 63 2 14, Mode 63 2 14, Mode 63 2 14, Mode 63 2 14,
     Mode 63 2 14, Mode 63 2 14, Mode 63 2 14, Mode 63 2 14, Mode 63 2 14, Mode 63 2 14,
     Mode 63 2 14, Mode 63 2 14, Mode 63 2 14, Mode 63 2 14, Mode 63 2 14, Mode 63 2 14]"

text \<open>Lines 41349 to 41498.\<close>

definition ts_lex_modes_11 :: "TSLexerMode list" where
  "ts_lex_modes_11 =
    [Mode 63 2 14, Mode 63 2 14, Mode 63 2 14, Mode 63 2 14, Mode 63 2 14, Mode 63 2 14,
     Mode 63 2 14, Mode 63 2 14, Mode 63 2 14, Mode 63 2 14, Mode 63 2 14, Mode 63 2 14,
     Mode 63 2 14, Mode 63 2 14, Mode 63 2 14, Mode 63 2 14, Mode 63 2 14, Mode 63 2 14,
     Mode 63 2 14, Mode 63 2 14, Mode 63 2 14, Mode 63 2 14, Mode 63 2 14, Mode 63 2 14,
     Mode 63 2 14, Mode 63 2 14, Mode 63 2 14, Mode 63 2 14, Mode 63 2 14, Mode 63 2 14,
     Mode 63 2 14, Mode 63 2 14, Mode 63 2 14, Mode 63 2 14, Mode 63 2 14, Mode 63 2 14,
     Mode 63 2 14, Mode 63 2 14, Mode 63 2 14, Mode 63 2 14, Mode 63 2 14, Mode 63 2 14,
     Mode 63 2 14, Mode 63 2 14, Mode 63 2 14, Mode 63 2 14, Mode 63 2 14, Mode 63 2 14,
     Mode 63 2 14, Mode 63 2 14, Mode 63 2 14, Mode 63 2 14, Mode 63 2 14, Mode 63 2 14,
     Mode 63 2 14, Mode 63 2 14, Mode 63 2 14, Mode 63 2 14, Mode 63 2 14, Mode 63 2 14,
     Mode 63 2 14, Mode 63 2 14, Mode 63 2 14, Mode 63 2 14, Mode 63 2 14, Mode 63 2 14,
     Mode 63 2 14, Mode 63 2 14, Mode 63 2 14, Mode 63 2 14, Mode 63 2 14, Mode 63 2 14,
     Mode 63 2 14, Mode 63 2 14, Mode 63 2 14, Mode 63 2 14, Mode 63 2 14, Mode 63 2 14,
     Mode 63 2 14, Mode 63 2 14, Mode 63 2 14, Mode 63 2 14, Mode 63 2 14, Mode 63 2 14,
     Mode 63 2 14, Mode 63 2 14, Mode 63 2 14, Mode 63 2 14, Mode 63 2 14, Mode 63 2 14,
     Mode 63 2 14, Mode 63 2 14, Mode 63 2 14, Mode 63 2 14, Mode 63 2 14, Mode 63 2 14,
     Mode 63 2 14, Mode 63 2 14, Mode 63 2 14, Mode 63 2 14, Mode 63 2 14, Mode 63 2 14,
     Mode 63 2 14, Mode 63 2 14, Mode 63 2 14, Mode 63 2 14, Mode 63 2 14, Mode 63 2 14,
     Mode 63 2 14, Mode 63 2 14, Mode 63 2 14, Mode 63 2 14, Mode 63 2 14, Mode 63 2 14,
     Mode 63 2 14, Mode 63 2 14, Mode 63 2 14, Mode 63 2 14, Mode 63 2 14, Mode 63 2 14,
     Mode 63 2 14, Mode 63 2 14, Mode 63 2 14, Mode 63 2 14, Mode 63 2 14, Mode 63 2 14,
     Mode 63 2 14, Mode 63 2 14, Mode 63 2 14, Mode 63 2 14, Mode 63 2 14, Mode 63 2 14,
     Mode 63 2 14, Mode 63 2 14, Mode 63 2 14, Mode 63 2 14, Mode 63 2 14, Mode 63 2 14,
     Mode 63 2 14, Mode 63 2 14, Mode 63 2 14, Mode 63 2 14, Mode 63 2 14, Mode 63 2 14,
     Mode 63 2 14, Mode 63 2 14, Mode 63 2 14, Mode 63 2 14, Mode 63 2 14, Mode 63 2 14]"

text \<open>Lines 41499 to 41648.\<close>

definition ts_lex_modes_12 :: "TSLexerMode list" where
  "ts_lex_modes_12 =
    [Mode 63 2 14, Mode 63 2 14, Mode 63 2 14, Mode 63 2 14, Mode 63 2 14, Mode 63 2 14,
     Mode 63 2 14, Mode 63 2 14, Mode 63 2 14, Mode 63 2 14, Mode 63 2 14, Mode 63 2 14,
     Mode 63 2 14, Mode 63 2 14, Mode 63 2 14, Mode 63 2 14, Mode 63 2 14, Mode 63 2 14,
     Mode 63 2 14, Mode 63 2 14, Mode 63 2 14, Mode 63 2 14, Mode 63 2 14, Mode 63 2 14,
     Mode 63 2 14, Mode 63 2 14, Mode 63 2 14, Mode 63 2 14, Mode 63 2 14, Mode 63 2 14,
     Mode 63 2 14, Mode 63 2 14, Mode 63 2 14, Mode 63 2 14, Mode 63 2 14, Mode 63 2 14,
     Mode 63 2 14, Mode 63 2 14, Mode 63 2 14, Mode 63 2 14, Mode 63 2 14, Mode 63 2 14,
     Mode 63 2 14, Mode 63 2 14, Mode 63 2 14, Mode 63 2 14, Mode 63 2 14, Mode 63 2 14,
     Mode 63 2 14, Mode 63 2 14, Mode 63 2 14, Mode 63 2 14, Mode 63 2 14, Mode 63 2 14,
     Mode 63 2 14, Mode 63 2 14, Mode 63 2 14, Mode 63 2 14, Mode 63 2 14, Mode 63 2 14,
     Mode 63 2 14, Mode 63 2 14, Mode 63 2 14, Mode 63 2 14, Mode 63 2 14, Mode 63 2 14,
     Mode 63 2 14, Mode 63 2 14, Mode 63 2 14, Mode 63 2 14, Mode 63 2 14, Mode 63 2 14,
     Mode 63 2 14, Mode 63 2 14, Mode 63 2 14, Mode 63 2 14, Mode 63 2 14, Mode 63 2 14,
     Mode 63 2 14, Mode 63 2 14, Mode 63 2 14, Mode 63 2 14, Mode 63 2 14, Mode 63 2 14,
     Mode 63 2 14, Mode 63 2 14, Mode 63 2 14, Mode 63 2 14, Mode 63 2 14, Mode 63 2 14,
     Mode 63 2 14, Mode 63 2 14, Mode 63 2 14, Mode 63 2 14, Mode 63 2 14, Mode 63 2 14,
     Mode 63 2 14, Mode 63 2 14, Mode 63 2 14, Mode 63 2 14, Mode 63 2 14, Mode 63 2 14,
     Mode 63 2 14, Mode 63 2 14, Mode 63 2 14, Mode 63 2 14, Mode 63 2 14, Mode 63 2 14,
     Mode 63 2 14, Mode 63 2 14, Mode 63 2 14, Mode 63 2 14, Mode 63 2 14, Mode 63 2 14,
     Mode 63 2 14, Mode 63 2 14, Mode 63 2 14, Mode 63 2 14, Mode 63 2 14, Mode 63 2 14,
     Mode 63 2 14, Mode 63 2 14, Mode 63 2 14, Mode 63 2 14, Mode 63 2 14, Mode 63 2 14,
     Mode 63 2 14, Mode 63 2 14, Mode 63 2 14, Mode 63 2 14, Mode 63 2 14, Mode 63 2 14,
     Mode 63 2 14, Mode 63 2 14, Mode 63 2 14, Mode 63 2 14, Mode 63 2 14, Mode 63 2 14,
     Mode 63 2 14, Mode 63 2 14, Mode 63 2 14, Mode 63 2 14, Mode 63 2 14, Mode 63 2 14,
     Mode 63 2 14, Mode 63 2 14, Mode 63 2 14, Mode 63 2 14, Mode 63 2 14, Mode 63 2 14]"

text \<open>Lines 41649 to 41798.\<close>

definition ts_lex_modes_13 :: "TSLexerMode list" where
  "ts_lex_modes_13 =
    [Mode 63 2 14, Mode 63 2 14, Mode 63 2 14, Mode 63 2 14, Mode 63 2 14, Mode 63 2 14,
     Mode 63 2 14, Mode 63 2 14, Mode 63 2 14, Mode 63 2 14, Mode 63 2 14, Mode 63 2 14,
     Mode 63 2 14, Mode 63 2 14, Mode 63 2 14, Mode 63 2 14, Mode 63 2 14, Mode 63 2 14,
     Mode 63 2 14, Mode 63 2 14, Mode 63 2 14, Mode 63 2 14, Mode 63 2 14, Mode 63 2 14,
     Mode 63 2 14, Mode 63 2 14, Mode 63 2 14, Mode 63 2 14, Mode 63 2 14, Mode 63 2 14,
     Mode 63 2 14, Mode 63 2 14, Mode 63 2 14, Mode 63 2 14, Mode 63 2 14, Mode 63 2 14,
     Mode 63 2 14, Mode 63 2 14, Mode 63 2 14, Mode 63 2 14, Mode 63 2 14, Mode 63 2 14,
     Mode 63 2 14, Mode 63 2 14, Mode 63 2 14, Mode 63 2 14, Mode 63 2 14, Mode 63 2 14,
     Mode 63 2 14, Mode 63 2 14, Mode 63 2 14, Mode 63 2 14, Mode 63 2 14, Mode 63 2 14,
     Mode 63 2 14, Mode 63 2 14, Mode 63 2 14, Mode 63 2 14, Mode 63 2 14, Mode 63 2 14,
     Mode 63 2 14, Mode 63 2 14, Mode 63 2 14, Mode 63 2 14, Mode 63 2 14, Mode 63 2 14,
     Mode 63 2 14, Mode 63 2 14, Mode 63 2 14, Mode 63 2 14, Mode 63 2 14, Mode 63 2 14,
     Mode 63 2 14, Mode 63 2 14, Mode 63 2 14, Mode 63 2 14, Mode 63 2 14, Mode 63 2 14,
     Mode 63 2 14, Mode 63 2 14, Mode 63 2 14, Mode 63 2 14, Mode 63 2 14, Mode 63 2 14,
     Mode 63 2 14, Mode 63 2 14, Mode 63 2 14, Mode 63 2 14, Mode 63 2 14, Mode 63 2 14,
     Mode 63 2 14, Mode 63 2 14, Mode 63 2 14, Mode 63 2 14, Mode 63 2 14, Mode 63 2 14,
     Mode 63 2 14, Mode 63 2 14, Mode 63 2 14, Mode 63 2 14, Mode 63 2 14, Mode 63 2 14, Mode 3 1 2,
     Mode 63 2 14, Mode 63 2 14, Mode 63 2 14, Mode 4 1 2, Mode 63 2 14, Mode 63 2 14, Mode 63 2 14,
     Mode 4 1 2, Mode 63 2 14, Mode 63 2 14, Mode 63 2 14, Mode 63 2 14, Mode 63 2 14, Mode 63 2 14,
     Mode 63 2 14, Mode 63 2 14, Mode 63 2 14, Mode 63 2 14, Mode 4 1 2, Mode 63 2 14, Mode 63 2 14,
     Mode 4 1 2, Mode 63 2 14, Mode 63 2 14, Mode 4 1 2, Mode 63 2 14, Mode 63 2 14, Mode 63 2 14,
     Mode 63 2 14, Mode 63 2 14, Mode 63 2 14, Mode 63 2 14, Mode 63 2 14, Mode 63 2 14,
     Mode 63 2 14, Mode 63 2 14, Mode 63 2 14, Mode 63 2 14, Mode 63 2 14, Mode 63 2 14,
     Mode 63 2 14, Mode 63 2 14, Mode 63 2 14, Mode 63 2 14, Mode 63 2 14, Mode 63 2 14,
     Mode 63 2 14]"

text \<open>Lines 41799 to 41948.\<close>

definition ts_lex_modes_14 :: "TSLexerMode list" where
  "ts_lex_modes_14 =
    [Mode 63 2 14, Mode 63 2 14, Mode 63 2 14, Mode 63 2 14, Mode 63 2 14, Mode 63 2 14,
     Mode 63 2 14, Mode 63 2 14, Mode 63 2 14, Mode 63 2 14, Mode 63 2 14, Mode 63 2 14,
     Mode 63 2 14, Mode 63 2 14, Mode 63 2 14, Mode 63 2 14, Mode 63 2 14, Mode 63 2 14,
     Mode 63 2 14, Mode 63 2 14, Mode 63 2 14, Mode 63 2 14, Mode 63 2 14, Mode 63 2 14,
     Mode 63 2 14, Mode 63 2 14, Mode 63 2 14, Mode 63 2 14, Mode 63 2 14, Mode 63 2 14,
     Mode 63 2 14, Mode 63 2 14, Mode 63 2 14, Mode 63 2 14, Mode 63 2 14, Mode 63 2 14,
     Mode 63 2 14, Mode 63 2 14, Mode 63 2 14, Mode 63 2 14, Mode 63 2 14, Mode 63 2 14,
     Mode 63 2 14, Mode 63 2 14, Mode 63 2 14, Mode 63 2 14, Mode 63 2 14, Mode 63 2 14,
     Mode 63 2 14, Mode 63 2 15, Mode 4 1 2, Mode 7 2 15, Mode 63 2 15, Mode 4 1 2, Mode 63 2 15,
     Mode 4 1 2, Mode 63 2 15, Mode 63 2 16, Mode 63 2 15, Mode 4 1 2, Mode 4 1 2, Mode 4 1 2,
     Mode 4 1 2, Mode 4 1 2, Mode 4 1 2, Mode 4 1 2, Mode 63 2 15, Mode 63 2 15, Mode 63 2 15,
     Mode 63 2 15, Mode 63 2 15, Mode 63 2 17, Mode 63 2 15, Mode 63 2 15, Mode 63 2 17,
     Mode 63 2 15, Mode 63 2 15, Mode 63 2 15, Mode 4 1 2, Mode 63 2 15, Mode 63 2 15, Mode 4 1 2,
     Mode 63 2 15, Mode 63 2 15, Mode 63 2 15, Mode 4 1 2, Mode 4 1 2, Mode 63 2 15, Mode 4 1 2,
     Mode 63 2 15, Mode 63 2 15, Mode 4 1 2, Mode 63 2 15, Mode 63 2 15, Mode 63 2 15, Mode 4 1 2,
     Mode 63 2 15, Mode 4 1 2, Mode 63 2 15, Mode 63 2 15, Mode 63 2 15, Mode 4 1 2, Mode 4 1 2,
     Mode 63 2 15, Mode 63 2 15, Mode 63 2 15, Mode 63 2 15, Mode 63 2 15, Mode 63 2 15,
     Mode 63 2 15, Mode 63 2 15, Mode 63 2 15, Mode 63 2 15, Mode 63 2 15, Mode 63 2 15,
     Mode 63 2 15, Mode 63 2 15, Mode 63 2 15, Mode 63 2 15, Mode 63 2 15, Mode 63 2 15,
     Mode 63 2 15, Mode 63 2 15, Mode 63 2 15, Mode 63 2 15, Mode 63 2 15, Mode 63 2 15,
     Mode 63 2 15, Mode 63 2 15, Mode 63 2 15, Mode 63 2 15, Mode 63 2 15, Mode 63 2 15,
     Mode 63 2 15, Mode 63 2 15, Mode 4 1 2, Mode 63 2 15, Mode 63 2 15, Mode 63 2 15, Mode 63 2 15,
     Mode 63 2 15, Mode 63 2 15, Mode 63 2 15, Mode 63 2 15, Mode 63 2 15, Mode 63 2 15,
     Mode 63 2 15, Mode 63 2 15, Mode 63 2 15, Mode 63 2 15]"

text \<open>Lines 41949 to 42098.\<close>

definition ts_lex_modes_15 :: "TSLexerMode list" where
  "ts_lex_modes_15 =
    [Mode 63 2 15, Mode 63 2 15, Mode 63 2 15, Mode 63 2 15, Mode 63 2 15, Mode 63 2 15,
     Mode 63 2 15, Mode 63 2 15, Mode 63 2 15, Mode 63 2 15, Mode 63 2 15, Mode 63 2 15,
     Mode 63 2 15, Mode 63 2 15, Mode 63 2 15, Mode 63 2 15, Mode 63 2 15, Mode 63 2 15,
     Mode 63 2 15, Mode 63 2 15, Mode 63 2 15, Mode 63 2 15, Mode 63 2 15, Mode 63 2 15,
     Mode 63 2 15, Mode 63 2 15, Mode 63 2 15, Mode 63 2 15, Mode 63 2 2, Mode 4 1 2, Mode 4 1 2,
     Mode 4 1 2, Mode 4 1 2, Mode 4 1 2, Mode 4 1 2, Mode 4 1 2, Mode 4 1 2, Mode 4 1 2, Mode 4 1 2,
     Mode 4 1 2, Mode 4 1 2, Mode 4 1 2, Mode 4 1 2, Mode 4 1 2, Mode 4 1 2, Mode 4 1 2, Mode 4 1 2,
     Mode 4 1 2, Mode 4 1 2, Mode 4 1 2, Mode 4 1 2, Mode 4 1 2, Mode 4 1 2, Mode 4 1 2, Mode 4 1 2,
     Mode 4 1 2, Mode 4 1 2, Mode 4 1 2, Mode 4 1 2, Mode 4 1 2, Mode 4 1 2, Mode 4 1 2, Mode 4 1 2,
     Mode 4 1 2, Mode 4 1 2, Mode 4 1 2, Mode 4 1 2, Mode 4 1 2, Mode 4 1 2, Mode 4 1 2, Mode 4 1 2,
     Mode 4 1 2, Mode 4 1 2, Mode 4 1 2, Mode 4 1 2, Mode 4 1 2, Mode 4 1 2, Mode 4 1 2, Mode 4 1 2,
     Mode 4 1 2, Mode 4 1 2, Mode 4 1 2, Mode 4 1 2, Mode 4 1 2, Mode 4 1 2, Mode 4 1 2, Mode 4 1 2,
     Mode 4 1 2, Mode 4 1 2, Mode 4 1 2, Mode 4 1 2, Mode 4 1 2, Mode 4 1 2, Mode 4 1 2, Mode 4 1 2,
     Mode 4 1 2, Mode 4 1 2, Mode 4 1 2, Mode 4 1 2, Mode 4 1 2, Mode 4 1 2, Mode 4 1 2, Mode 4 1 2,
     Mode 4 1 2, Mode 4 1 2, Mode 4 1 2, Mode 4 1 2, Mode 4 1 2, Mode 4 1 2, Mode 4 1 2, Mode 4 1 2,
     Mode 4 1 2, Mode 4 1 2, Mode 4 1 2, Mode 4 1 2, Mode 4 1 2, Mode 4 1 2, Mode 4 1 2, Mode 4 1 2,
     Mode 4 1 2, Mode 4 1 2, Mode 4 1 2, Mode 4 1 2, Mode 4 1 2, Mode 4 1 2, Mode 4 1 2, Mode 4 1 2,
     Mode 4 1 2, Mode 4 1 2, Mode 4 1 2, Mode 4 1 2, Mode 4 1 2, Mode 4 1 2, Mode 4 1 2, Mode 4 1 2,
     Mode 4 1 2, Mode 4 1 2, Mode 4 1 2, Mode 4 1 2, Mode 4 1 2, Mode 4 1 2, Mode 4 1 2, Mode 4 1 2,
     Mode 4 1 2, Mode 4 1 2, Mode 4 1 2, Mode 4 1 2, Mode 4 1 2, Mode 4 1 2, Mode 4 1 2]"

text \<open>Lines 42099 to 42248.\<close>

definition ts_lex_modes_16 :: "TSLexerMode list" where
  "ts_lex_modes_16 =
    [Mode 4 1 2, Mode 4 1 2, Mode 4 1 2, Mode 4 1 2, Mode 4 1 2, Mode 4 1 2, Mode 4 1 2, Mode 4 1 2,
     Mode 4 1 2, Mode 4 1 2, Mode 4 1 2, Mode 4 1 2, Mode 4 1 2, Mode 4 1 2, Mode 4 1 2, Mode 4 1 2,
     Mode 4 1 2, Mode 4 1 2, Mode 4 1 2, Mode 4 1 2, Mode 4 1 2, Mode 4 1 2, Mode 4 1 2, Mode 4 1 2,
     Mode 4 1 2, Mode 4 1 2, Mode 4 1 2, Mode 4 1 2, Mode 4 1 2, Mode 4 1 2, Mode 4 1 2, Mode 4 1 2,
     Mode 4 1 2, Mode 4 1 2, Mode 4 1 2, Mode 4 1 2, Mode 4 1 2, Mode 4 1 2, Mode 4 1 2, Mode 4 1 2,
     Mode 63 2 18, Mode 4 1 2, Mode 4 1 2, Mode 4 1 2, Mode 4 1 2, Mode 4 1 2, Mode 4 1 2,
     Mode 4 1 2, Mode 63 2 2, Mode 63 2 2, Mode 4 1 2, Mode 4 1 2, Mode 63 2 19, Mode 4 1 2,
     Mode 4 1 2, Mode 4 1 2, Mode 4 1 2, Mode 63 2 2, Mode 63 2 20, Mode 63 2 2, Mode 63 2 2,
     Mode 63 2 2, Mode 63 2 21, Mode 63 2 22, Mode 63 2 2, Mode 63 2 2, Mode 63 2 23, Mode 63 2 23,
     Mode 63 2 2, Mode 63 2 2, Mode 63 2 2, Mode 63 2 24, Mode 63 2 2, Mode 63 2 2, Mode 63 2 2,
     Mode 63 2 2, Mode 63 2 2, Mode 63 2 23, Mode 63 2 24, Mode 63 2 23, Mode 63 2 25, Mode 63 2 2,
     Mode 63 2 2, Mode 63 2 2, Mode 63 2 2, Mode 8 2 26, Mode 8 2 26, Mode 63 2 27, Mode 63 2 27,
     Mode 63 2 27, Mode 63 2 27, Mode 63 2 0, Mode 8 2 28, Mode 63 2 2, Mode 63 2 0, Mode 63 2 2,
     Mode 63 2 0, Mode 63 2 2, Mode 63 2 0, Mode 8 2 28, Mode 8 2 28, Mode 8 2 28, Mode 8 2 28,
     Mode 8 2 28, Mode 63 2 2, Mode 63 2 2, Mode 8 2 28, Mode 63 2 2, Mode 63 2 2, Mode 8 2 28,
     Mode 8 2 28, Mode 63 2 2, Mode 8 2 28, Mode 8 2 28, Mode 8 2 28, Mode 4 1 2, Mode 8 2 29,
     Mode 63 2 2, Mode 63 2 2, Mode 8 2 29, Mode 8 2 28, Mode 63 2 0, Mode 8 2 29, Mode 8 2 29,
     Mode 63 2 2, Mode 63 2 0, Mode 63 2 0, Mode 63 2 0, Mode 63 2 2, Mode 8 2 29, Mode 8 2 29,
     Mode 63 2 2, Mode 8 2 29, Mode 63 2 0, Mode 8 2 29, Mode 63 2 0, Mode 63 2 0, Mode 8 2 29,
     Mode 63 2 0, Mode 63 2 0, Mode 63 2 0, Mode 63 2 0, Mode 63 2 0, Mode 8 2 29, Mode 63 2 0,
     Mode 63 2 0, Mode 63 2 0, Mode 63 2 0, Mode 63 2 0, Mode 63 2 0]"

text \<open>Lines 42249 to 42398.\<close>

definition ts_lex_modes_17 :: "TSLexerMode list" where
  "ts_lex_modes_17 =
    [Mode 63 2 0, Mode 63 2 0, Mode 63 2 0, Mode 63 2 0, Mode 63 2 0, Mode 63 2 0, Mode 63 2 0,
     Mode 63 2 0, Mode 63 2 0, Mode 63 2 0, Mode 63 2 30, Mode 63 2 30, Mode 63 2 30, Mode 63 2 30,
     Mode 63 2 30, Mode 63 2 30, Mode 63 2 30, Mode 63 2 30, Mode 63 2 30, Mode 63 2 30,
     Mode 63 2 30, Mode 63 2 30, Mode 63 2 30, Mode 63 2 30, Mode 4 1 2, Mode 63 2 30, Mode 63 2 30,
     Mode 63 2 30, Mode 4 1 2, Mode 63 2 30, Mode 63 2 30, Mode 63 2 30, Mode 4 1 2, Mode 63 2 30,
     Mode 63 2 30, Mode 63 2 30, Mode 4 1 2, Mode 63 2 30, Mode 63 2 30, Mode 63 2 30, Mode 63 2 30,
     Mode 63 2 30, Mode 63 2 30, Mode 63 2 30, Mode 63 2 30, Mode 63 2 30, Mode 63 2 30,
     Mode 63 2 30, Mode 63 2 30, Mode 63 2 30, Mode 4 1 2, Mode 63 2 30, Mode 63 2 30, Mode 63 2 30,
     Mode 63 2 30, Mode 63 2 30, Mode 63 2 30, Mode 63 2 30, Mode 63 2 30, Mode 63 2 30,
     Mode 63 2 30, Mode 4 1 2, Mode 63 2 30, Mode 63 2 30, Mode 63 2 30, Mode 63 2 30, Mode 63 2 30,
     Mode 63 2 30, Mode 63 2 30, Mode 63 2 30, Mode 63 2 30, Mode 63 2 30, Mode 63 2 30,
     Mode 63 2 30, Mode 63 2 30, Mode 63 2 30, Mode 63 2 30, Mode 63 2 30, Mode 63 2 30,
     Mode 63 2 30, Mode 63 2 30, Mode 63 2 30, Mode 63 2 30, Mode 63 2 30, Mode 63 2 30,
     Mode 63 2 30, Mode 63 2 30, Mode 63 2 30, Mode 63 2 30, Mode 63 2 30, Mode 63 2 30,
     Mode 63 2 30, Mode 63 2 30, Mode 63 2 30, Mode 63 2 30, Mode 63 2 30, Mode 63 2 30,
     Mode 63 2 30, Mode 63 2 30, Mode 63 2 30, Mode 63 2 30, Mode 63 2 30, Mode 63 2 30,
     Mode 63 2 30, Mode 63 2 30, Mode 63 2 30, Mode 63 2 30, Mode 63 2 30, Mode 63 2 30,
     Mode 63 2 30, Mode 63 2 30, Mode 63 2 30, Mode 63 2 30, Mode 63 2 30, Mode 63 2 30,
     Mode 63 2 30, Mode 63 2 30, Mode 63 2 30, Mode 63 2 30, Mode 4 1 2, Mode 63 2 30, Mode 63 2 30,
     Mode 63 2 30, Mode 63 2 30, Mode 63 2 30, Mode 63 2 30, Mode 63 2 30, Mode 63 2 30,
     Mode 63 2 30, Mode 63 2 30, Mode 63 2 30, Mode 63 2 30, Mode 63 2 30, Mode 63 2 30,
     Mode 63 2 30, Mode 63 2 30, Mode 63 2 2, Mode 4 1 2, Mode 63 2 30, Mode 63 2 30, Mode 63 2 30,
     Mode 4 1 2, Mode 63 2 30, Mode 63 2 30, Mode 63 2 30, Mode 63 2 30, Mode 63 2 30, Mode 63 2 30,
     Mode 63 2 0, Mode 63 2 2]"

text \<open>Lines 42399 to 42548.\<close>

definition ts_lex_modes_18 :: "TSLexerMode list" where
  "ts_lex_modes_18 =
    [Mode 63 2 0, Mode 63 2 0, Mode 63 2 0, Mode 63 2 2, Mode 63 2 0, Mode 12 2 27, Mode 63 2 0,
     Mode 63 2 0, Mode 63 2 0, Mode 63 2 0, Mode 63 2 0, Mode 8 2 27, Mode 63 2 0, Mode 63 2 0,
     Mode 63 2 0, Mode 63 2 0, Mode 63 2 0, Mode 63 2 0, Mode 63 2 0, Mode 63 2 0, Mode 63 2 0,
     Mode 63 2 0, Mode 63 2 0, Mode 63 2 0, Mode 63 2 0, Mode 63 2 0, Mode 63 2 0, Mode 63 2 0,
     Mode 63 2 0, Mode 63 2 0, Mode 63 2 0, Mode 63 2 0, Mode 63 2 0, Mode 63 2 0, Mode 63 2 0,
     Mode 63 2 0, Mode 63 2 0, Mode 63 2 0, Mode 63 2 0, Mode 63 2 0, Mode 63 2 0, Mode 63 2 0,
     Mode 63 2 2, Mode 63 2 0, Mode 63 2 0, Mode 63 2 0, Mode 63 2 0, Mode 63 2 0, Mode 63 2 0,
     Mode 63 2 0, Mode 63 2 0, Mode 63 2 0, Mode 63 2 0, Mode 63 2 0, Mode 63 2 0, Mode 63 2 0,
     Mode 63 2 0, Mode 63 2 0, Mode 63 2 0, Mode 63 2 0, Mode 63 2 0, Mode 63 2 0, Mode 63 2 0,
     Mode 8 2 27, Mode 63 2 0, Mode 63 2 0, Mode 63 2 0, Mode 63 2 0, Mode 63 2 0, Mode 63 2 0,
     Mode 63 2 0, Mode 63 2 0, Mode 63 2 0, Mode 63 2 0, Mode 63 2 0, Mode 63 2 0, Mode 63 2 2,
     Mode 8 2 27, Mode 63 2 0, Mode 63 2 0, Mode 63 2 0, Mode 63 2 0, Mode 63 2 0, Mode 63 2 0,
     Mode 63 2 0, Mode 63 2 0, Mode 63 2 0, Mode 63 2 0, Mode 63 2 0, Mode 63 2 0, Mode 63 2 31,
     Mode 8 2 27, Mode 63 2 32, Mode 8 2 27, Mode 63 2 2, Mode 63 2 31, Mode 63 2 0, Mode 8 2 27,
     Mode 63 2 0, Mode 63 2 0, Mode 63 2 0, Mode 63 2 0, Mode 63 2 0, Mode 63 2 0, Mode 63 2 0,
     Mode 63 2 0, Mode 63 2 0, Mode 63 2 0, Mode 63 2 0, Mode 63 2 0, Mode 63 2 0, Mode 63 2 0,
     Mode 63 2 0, Mode 63 2 0, Mode 63 2 0, Mode 63 2 0, Mode 63 2 0, Mode 63 2 0, Mode 63 2 0,
     Mode 63 2 0, Mode 63 2 0, Mode 63 2 0, Mode 63 2 0, Mode 63 2 0, Mode 63 2 0, Mode 63 2 0,
     Mode 63 2 0, Mode 63 2 0, Mode 63 2 0, Mode 63 2 0, Mode 63 2 0, Mode 63 2 0, Mode 63 2 0,
     Mode 63 2 0, Mode 63 2 0, Mode 63 2 0, Mode 63 2 0, Mode 63 2 0, Mode 63 2 0, Mode 63 2 0,
     Mode 63 2 0, Mode 63 2 0, Mode 63 2 0, Mode 63 2 0, Mode 63 2 0, Mode 63 2 0, Mode 63 2 0,
     Mode 63 2 0, Mode 63 2 0, Mode 63 2 0]"

text \<open>Lines 42549 to 42698.\<close>

definition ts_lex_modes_19 :: "TSLexerMode list" where
  "ts_lex_modes_19 =
    [Mode 63 2 0, Mode 63 2 0, Mode 63 2 0, Mode 63 2 0, Mode 63 2 0, Mode 63 2 0, Mode 63 2 0,
     Mode 63 2 0, Mode 63 2 0, Mode 63 2 0, Mode 63 2 0, Mode 63 2 0, Mode 63 2 0, Mode 63 2 0,
     Mode 63 2 0, Mode 63 2 0, Mode 63 2 0, Mode 63 2 0, Mode 63 2 0, Mode 63 2 0, Mode 63 2 0,
     Mode 63 2 0, Mode 63 2 0, Mode 63 2 0, Mode 63 2 0, Mode 63 2 0, Mode 63 2 0, Mode 63 2 0,
     Mode 63 2 0, Mode 63 2 0, Mode 63 2 0, Mode 63 2 0, Mode 63 2 0, Mode 63 2 0, Mode 63 2 0,
     Mode 63 2 0, Mode 63 2 0, Mode 63 2 0, Mode 63 2 0, Mode 63 2 0, Mode 63 2 0, Mode 63 2 0,
     Mode 63 2 0, Mode 63 2 0, Mode 63 2 0, Mode 63 2 0, Mode 63 2 0, Mode 63 2 0, Mode 63 2 0,
     Mode 63 2 0, Mode 63 2 0, Mode 63 2 0, Mode 63 2 0, Mode 63 2 0, Mode 63 2 0, Mode 63 2 0,
     Mode 63 2 0, Mode 63 2 0, Mode 63 2 0, Mode 63 2 0, Mode 63 2 0, Mode 63 2 0, Mode 63 2 0,
     Mode 63 2 0, Mode 63 2 0, Mode 63 2 0, Mode 63 2 0, Mode 63 2 0, Mode 63 2 0, Mode 63 2 0,
     Mode 63 2 0, Mode 63 2 0, Mode 63 2 0, Mode 63 2 0, Mode 63 2 0, Mode 63 2 0, Mode 63 2 0,
     Mode 63 2 0, Mode 63 2 0, Mode 63 2 0, Mode 63 2 0, Mode 63 2 0, Mode 63 2 0, Mode 63 2 0,
     Mode 63 2 0, Mode 63 2 0, Mode 63 2 0, Mode 63 2 0, Mode 63 2 0, Mode 63 2 0, Mode 63 2 0,
     Mode 63 2 0, Mode 63 2 0, Mode 63 2 0, Mode 63 2 0, Mode 63 2 0, Mode 63 2 0, Mode 63 2 0,
     Mode 63 2 0, Mode 63 2 0, Mode 63 2 0, Mode 63 2 0, Mode 63 2 0, Mode 63 2 0, Mode 63 2 0,
     Mode 63 2 0, Mode 63 2 0, Mode 63 2 0, Mode 63 2 0, Mode 63 2 0, Mode 63 2 0, Mode 63 2 0,
     Mode 63 2 0, Mode 63 2 0, Mode 63 2 0, Mode 63 2 0, Mode 63 2 0, Mode 63 2 0, Mode 63 2 0,
     Mode 63 2 0, Mode 63 2 0, Mode 63 2 0, Mode 63 2 0, Mode 63 2 0, Mode 63 2 0, Mode 63 2 0,
     Mode 63 2 0, Mode 63 2 0, Mode 63 2 0, Mode 63 2 0, Mode 63 2 0, Mode 63 2 0, Mode 63 2 0,
     Mode 63 2 0, Mode 63 2 0, Mode 63 2 0, Mode 63 2 0, Mode 63 2 0, Mode 63 2 0, Mode 63 2 0,
     Mode 63 2 0, Mode 63 2 0, Mode 63 2 0, Mode 63 2 0, Mode 63 2 0, Mode 63 2 0, Mode 63 2 0,
     Mode 63 2 0, Mode 63 2 0, Mode 63 2 0]"

text \<open>Lines 42699 to 42848.\<close>

definition ts_lex_modes_20 :: "TSLexerMode list" where
  "ts_lex_modes_20 =
    [Mode 63 2 0, Mode 63 2 0, Mode 63 2 0, Mode 63 2 0, Mode 63 2 0, Mode 63 2 0, Mode 63 2 0,
     Mode 63 2 0, Mode 63 2 0, Mode 63 2 0, Mode 63 2 0, Mode 63 2 0, Mode 63 2 0, Mode 63 2 0,
     Mode 63 2 0, Mode 63 2 0, Mode 63 2 0, Mode 63 2 0, Mode 63 2 0, Mode 63 2 0, Mode 63 2 0,
     Mode 63 2 0, Mode 63 2 0, Mode 63 2 0, Mode 63 2 0, Mode 63 2 0, Mode 63 2 0, Mode 63 2 0,
     Mode 63 2 0, Mode 63 2 0, Mode 63 2 0, Mode 63 2 0, Mode 63 2 0, Mode 63 2 0, Mode 63 2 0,
     Mode 63 2 0, Mode 63 2 0, Mode 63 2 0, Mode 63 2 0, Mode 63 2 0, Mode 63 2 0, Mode 63 2 0,
     Mode 63 2 0, Mode 63 2 0, Mode 63 2 0, Mode 63 2 0, Mode 63 2 0, Mode 63 2 0, Mode 63 2 0,
     Mode 63 2 0, Mode 63 2 0, Mode 63 2 0, Mode 63 2 0, Mode 63 2 0, Mode 63 2 0, Mode 63 2 0,
     Mode 63 2 0, Mode 63 2 0, Mode 63 2 0, Mode 63 2 0, Mode 63 2 0, Mode 63 2 0, Mode 63 2 0,
     Mode 63 2 0, Mode 63 2 0, Mode 63 2 0, Mode 63 2 0, Mode 63 2 0, Mode 63 2 0, Mode 63 2 0,
     Mode 63 2 0, Mode 63 2 0, Mode 63 2 0, Mode 63 2 0, Mode 63 2 0, Mode 63 2 0, Mode 63 2 0,
     Mode 63 2 0, Mode 63 2 0, Mode 63 2 0, Mode 63 2 0, Mode 63 2 0, Mode 63 2 0, Mode 63 2 0,
     Mode 8 2 27, Mode 8 2 27, Mode 8 2 27, Mode 8 2 27, Mode 63 2 0, Mode 63 2 33, Mode 63 2 33,
     Mode 63 2 33, Mode 63 2 2, Mode 8 2 27, Mode 63 2 2, Mode 63 2 34, Mode 63 2 33, Mode 63 2 34,
     Mode 63 2 35, Mode 63 2 35, Mode 63 2 35, Mode 63 2 34, Mode 63 2 34, Mode 63 2 34,
     Mode 63 2 34, Mode 63 2 34, Mode 63 2 34, Mode 63 2 34, Mode 63 2 5, Mode 63 2 2, Mode 63 2 33,
     Mode 8 2 27, Mode 63 2 35, Mode 63 2 35, Mode 63 2 2, Mode 63 2 35, Mode 63 2 2, Mode 63 2 35,
     Mode 63 2 2, Mode 63 2 2, Mode 63 2 2, Mode 63 2 2, Mode 63 2 2, Mode 63 2 2, Mode 63 2 2,
     Mode 8 2 27, Mode 63 2 2, Mode 63 2 2, Mode 63 2 2, Mode 8 2 27, Mode 63 2 2, Mode 63 2 2,
     Mode 63 2 2, Mode 8 2 27, Mode 63 2 2, Mode 63 2 2, Mode 63 2 2, Mode 63 2 2, Mode 63 2 2,
     Mode 63 2 2, Mode 63 2 2, Mode 63 2 35, Mode 63 2 2, Mode 63 2 2, Mode 63 2 2, Mode 63 2 2,
     Mode 63 2 2, Mode 63 2 2, Mode 63 2 2, Mode 63 2 2]"

text \<open>Lines 42849 to 42998.\<close>

definition ts_lex_modes_21 :: "TSLexerMode list" where
  "ts_lex_modes_21 =
    [Mode 63 2 2, Mode 63 2 2, Mode 63 2 2, Mode 63 2 2, Mode 63 2 2, Mode 63 2 2, Mode 63 2 2,
     Mode 63 2 2, Mode 63 2 2, Mode 63 2 2, Mode 63 2 2, Mode 63 2 2, Mode 63 2 2, Mode 63 2 2,
     Mode 63 2 2, Mode 63 2 2, Mode 63 2 2, Mode 63 2 2, Mode 63 2 2, Mode 63 2 2, Mode 63 2 2,
     Mode 63 2 2, Mode 63 2 2, Mode 63 2 2, Mode 63 2 2, Mode 63 2 2, Mode 63 2 2, Mode 63 2 2,
     Mode 63 2 2, Mode 63 2 35, Mode 63 2 36, Mode 63 2 37, Mode 63 2 2, Mode 63 2 35, Mode 63 2 35,
     Mode 63 2 37, Mode 63 2 37, Mode 63 2 37, Mode 63 2 37, Mode 63 2 37, Mode 63 2 37,
     Mode 63 2 37, Mode 63 2 37, Mode 63 2 37, Mode 63 2 37, Mode 63 2 37, Mode 63 2 37,
     Mode 63 2 37, Mode 63 2 37, Mode 63 2 37, Mode 63 2 37, Mode 63 2 37, Mode 63 2 37,
     Mode 63 2 37, Mode 63 2 37, Mode 63 2 37, Mode 63 2 37, Mode 63 2 37, Mode 63 2 37,
     Mode 63 2 37, Mode 63 2 37, Mode 63 2 37, Mode 63 2 37, Mode 63 2 37, Mode 63 2 37,
     Mode 63 2 37, Mode 63 2 37, Mode 63 2 37, Mode 63 2 37, Mode 63 2 37, Mode 63 2 37,
     Mode 63 2 37, Mode 63 2 37, Mode 63 2 37, Mode 63 2 37, Mode 63 2 37, Mode 63 2 37,
     Mode 63 2 37, Mode 63 2 0, Mode 63 2 0, Mode 63 2 0, Mode 63 2 0, Mode 63 2 38, Mode 63 2 2,
     Mode 63 2 27, Mode 63 2 27, Mode 63 2 2, Mode 63 2 27, Mode 63 2 27, Mode 63 2 27,
     Mode 63 2 38, Mode 63 2 38, Mode 63 2 2, Mode 63 2 2, Mode 63 2 2, Mode 63 2 2, Mode 63 2 2,
     Mode 63 2 2, Mode 63 2 2, Mode 63 2 27, Mode 63 2 38, Mode 63 2 38, Mode 63 2 27, Mode 63 2 38,
     Mode 63 2 38, Mode 63 2 38, Mode 63 2 38, Mode 63 2 27, Mode 63 2 27, Mode 63 2 2,
     Mode 63 2 27, Mode 63 2 2, Mode 63 2 2, Mode 63 2 27, Mode 63 2 27, Mode 63 2 27, Mode 63 2 27,
     Mode 63 2 27, Mode 63 2 27, Mode 63 2 27, Mode 63 2 27, Mode 63 2 27, Mode 63 2 27,
     Mode 63 2 27, Mode 63 2 27, Mode 63 2 27, Mode 63 2 38, Mode 63 2 38, Mode 63 2 38,
     Mode 63 2 38, Mode 63 2 38, Mode 63 2 2, Mode 63 2 2, Mode 63 2 2, Mode 63 2 2, Mode 63 2 2,
     Mode 63 2 2, Mode 63 2 2, Mode 63 2 27, Mode 63 2 27, Mode 63 2 27, Mode 63 2 27, Mode 63 2 27,
     Mode 63 2 27, Mode 63 2 27, Mode 63 2 2, Mode 63 2 27, Mode 63 2 2, Mode 63 2 2, Mode 63 2 27]"

text \<open>Lines 42999 to 43148.\<close>

definition ts_lex_modes_22 :: "TSLexerMode list" where
  "ts_lex_modes_22 =
    [Mode 63 2 27, Mode 63 2 38, Mode 63 2 38, Mode 63 2 27, Mode 63 2 2, Mode 63 2 27, Mode 63 2 2,
     Mode 63 2 2, Mode 63 2 2, Mode 63 2 27, Mode 63 2 2, Mode 63 2 2, Mode 63 2 2, Mode 63 2 2,
     Mode 63 2 2, Mode 63 2 2, Mode 63 2 2, Mode 63 2 27, Mode 63 2 27, Mode 63 2 27, Mode 63 2 27,
     Mode 63 2 27, Mode 63 2 27, Mode 63 2 27, Mode 63 2 27, Mode 63 2 27, Mode 63 2 2,
     Mode 63 2 27, Mode 63 2 2, Mode 63 2 2, Mode 63 2 2, Mode 63 2 2, Mode 63 2 2, Mode 63 2 2,
     Mode 63 2 2, Mode 63 2 2, Mode 63 2 2, Mode 63 2 2, Mode 63 2 2, Mode 63 2 2, Mode 63 2 2,
     Mode 63 2 2, Mode 63 2 2, Mode 63 2 2, Mode 63 2 2, Mode 63 2 2, Mode 63 2 2, Mode 63 2 2,
     Mode 63 2 2, Mode 63 2 2, Mode 63 2 2, Mode 63 2 2, Mode 63 2 2, Mode 63 2 2, Mode 63 2 2,
     Mode 63 2 2, Mode 63 2 2, Mode 63 2 2, Mode 63 2 2, Mode 63 2 2, Mode 63 2 2, Mode 63 2 2,
     Mode 63 2 2, Mode 63 2 2, Mode 63 2 2, Mode 63 2 2, Mode 63 2 2, Mode 63 2 2, Mode 63 2 2,
     Mode 63 2 2, Mode 63 2 2, Mode 63 2 2, Mode 63 2 2, Mode 63 2 2, Mode 63 2 2, Mode 63 2 2,
     Mode 63 2 2, Mode 63 2 2, Mode 63 2 2, Mode 63 2 2, Mode 63 2 2, Mode 63 2 2, Mode 63 2 2,
     Mode 63 2 2, Mode 63 2 2, Mode 63 2 2, Mode 63 2 2, Mode 63 2 2, Mode 63 2 2, Mode 63 2 2,
     Mode 63 2 2, Mode 63 2 2, Mode 63 2 2, Mode 63 2 2, Mode 63 2 2, Mode 63 2 2, Mode 63 2 2,
     Mode 63 2 2, Mode 63 2 2, Mode 63 2 2, Mode 63 2 2, Mode 63 2 2, Mode 63 2 2, Mode 63 2 2,
     Mode 63 2 2, Mode 63 2 2, Mode 63 2 2, Mode 63 2 2, Mode 63 2 2, Mode 63 2 2, Mode 63 2 2,
     Mode 63 2 2, Mode 63 2 2, Mode 63 2 2, Mode 63 2 2, Mode 63 2 2, Mode 63 2 2, Mode 63 2 2,
     Mode 63 2 39, Mode 63 2 0, Mode 63 2 0, Mode 63 2 0, Mode 63 2 0, Mode 63 2 0, Mode 63 2 0,
     Mode 63 2 0, Mode 63 2 0, Mode 63 2 0, Mode 63 2 0, Mode 63 2 0, Mode 63 2 0, Mode 63 2 0,
     Mode 63 2 0, Mode 63 2 0, Mode 63 2 2, Mode 63 2 0, Mode 63 2 0, Mode 63 2 2, Mode 63 2 0,
     Mode 63 2 0, Mode 63 2 0, Mode 63 2 0, Mode 63 2 0, Mode 63 2 0, Mode 63 2 0, Mode 8 2 0,
     Mode 63 2 0, Mode 63 2 0, Mode 63 2 0, Mode 63 2 0]"

text \<open>Lines 43149 to 43298.\<close>

definition ts_lex_modes_23 :: "TSLexerMode list" where
  "ts_lex_modes_23 =
    [Mode 63 2 2, Mode 63 2 0, Mode 63 2 0, Mode 63 2 0, Mode 63 2 0, Mode 63 2 0, Mode 63 2 0,
     Mode 63 2 40, Mode 63 2 2, Mode 63 2 2, Mode 63 2 0, Mode 63 2 0, Mode 63 2 0, Mode 63 2 0,
     Mode 63 2 0, Mode 63 2 0, Mode 63 2 0, Mode 63 2 0, Mode 63 2 0, Mode 63 2 0, Mode 63 2 0,
     Mode 63 2 0, Mode 63 2 0, Mode 63 2 0, Mode 63 2 0, Mode 63 2 0, Mode 63 2 0, Mode 63 2 0,
     Mode 63 2 0, Mode 63 2 2, Mode 63 2 2, Mode 63 2 2, Mode 63 2 2, Mode 63 2 40, Mode 63 2 40,
     Mode 63 2 0, Mode 63 2 0, Mode 63 2 0, Mode 63 2 0, Mode 63 2 0, Mode 63 2 0, Mode 63 2 0,
     Mode 63 2 0, Mode 63 2 0, Mode 63 2 0, Mode 63 2 2, Mode 63 2 0, Mode 63 2 0, Mode 63 2 0,
     Mode 63 2 0, Mode 63 2 0, Mode 63 2 0, Mode 63 2 0, Mode 63 2 0, Mode 63 2 0, Mode 63 2 0,
     Mode 63 2 0, Mode 63 2 0, Mode 63 2 0, Mode 63 2 0, Mode 63 2 0, Mode 63 2 0, Mode 63 2 0,
     Mode 63 2 0, Mode 63 2 0, Mode 63 2 0, Mode 63 2 0, Mode 63 2 0, Mode 63 2 0, Mode 63 2 13,
     Mode 63 2 0, Mode 63 2 0, Mode 63 2 0, Mode 63 2 0, Mode 63 2 0, Mode 63 2 2, Mode 63 2 0,
     Mode 63 2 0, Mode 63 2 0, Mode 63 2 0, Mode 63 2 0, Mode 63 2 40, Mode 63 2 0, Mode 63 2 0,
     Mode 63 2 0, Mode 63 2 0, Mode 63 2 0, Mode 63 2 0, Mode 63 2 0, Mode 63 2 0, Mode 63 2 0,
     Mode 63 2 40, Mode 63 2 0, Mode 63 2 0, Mode 63 2 0, Mode 63 2 0, Mode 63 2 0, Mode 63 2 0,
     Mode 63 2 0, Mode 63 2 0, Mode 63 2 2, Mode 63 2 0, Mode 63 2 0, Mode 63 2 0, Mode 63 2 0,
     Mode 63 2 0, Mode 63 2 0, Mode 63 2 0, Mode 63 2 0, Mode 63 2 0, Mode 63 2 0, Mode 63 2 0,
     Mode 63 2 0, Mode 63 2 0, Mode 63 2 0, Mode 63 2 0, Mode 63 2 0, Mode 63 2 0, Mode 63 2 0,
     Mode 63 2 0, Mode 63 2 0, Mode 63 2 0, Mode 63 2 0, Mode 63 2 0, Mode 63 2 0, Mode 63 2 0,
     Mode 63 2 0, Mode 63 2 0, Mode 63 2 0, Mode 63 2 0, Mode 63 2 0, Mode 63 2 0, Mode 63 2 0,
     Mode 63 2 0, Mode 63 2 0, Mode 63 2 0, Mode 63 2 0, Mode 63 2 0, Mode 63 2 0, Mode 63 2 0,
     Mode 63 2 0, Mode 63 2 0, Mode 63 2 0, Mode 63 2 0, Mode 63 2 0, Mode 63 2 0, Mode 63 2 0,
     Mode 63 2 0, Mode 63 2 0, Mode 63 2 0]"

text \<open>Lines 43299 to 43448.\<close>

definition ts_lex_modes_24 :: "TSLexerMode list" where
  "ts_lex_modes_24 =
    [Mode 63 2 0, Mode 63 2 0, Mode 63 2 0, Mode 63 2 0, Mode 63 2 0, Mode 63 2 0, Mode 63 2 0,
     Mode 63 2 0, Mode 63 2 0, Mode 63 2 0, Mode 63 2 0, Mode 63 2 0, Mode 63 2 0, Mode 63 2 0,
     Mode 63 2 0, Mode 63 2 0, Mode 63 2 0, Mode 63 2 0, Mode 63 2 0, Mode 63 2 0, Mode 63 2 0,
     Mode 63 2 0, Mode 63 2 0, Mode 63 2 0, Mode 63 2 0, Mode 63 2 0, Mode 63 2 0, Mode 63 2 0,
     Mode 63 2 0, Mode 63 2 0, Mode 63 2 0, Mode 63 2 0, Mode 63 2 0, Mode 63 2 0, Mode 63 2 0,
     Mode 63 2 0, Mode 63 2 0, Mode 63 2 0, Mode 63 2 0, Mode 63 2 0, Mode 63 2 0, Mode 63 2 0,
     Mode 63 2 0, Mode 63 2 0, Mode 63 2 0, Mode 63 2 0, Mode 63 2 0, Mode 63 2 0, Mode 63 2 0,
     Mode 63 2 0, Mode 63 2 0, Mode 63 2 0, Mode 63 2 0, Mode 63 2 0, Mode 63 2 0, Mode 63 2 0,
     Mode 63 2 0, Mode 63 2 0, Mode 63 2 0, Mode 63 2 0, Mode 63 2 0, Mode 63 2 0, Mode 63 2 0,
     Mode 63 2 0, Mode 63 2 0, Mode 63 2 0, Mode 63 2 0, Mode 63 2 0, Mode 63 2 0, Mode 63 2 0,
     Mode 63 2 0, Mode 63 2 0, Mode 63 2 0, Mode 63 2 0, Mode 63 2 0, Mode 63 2 0, Mode 63 2 0,
     Mode 63 2 0, Mode 63 2 0, Mode 63 2 0, Mode 63 2 0, Mode 63 2 0, Mode 63 2 0, Mode 63 2 0,
     Mode 63 2 0, Mode 63 2 0, Mode 63 2 0, Mode 63 2 0, Mode 63 2 0, Mode 63 2 0, Mode 63 2 0,
     Mode 63 2 0, Mode 63 2 0, Mode 63 2 0, Mode 63 2 0, Mode 63 2 0, Mode 63 2 0, Mode 63 2 0,
     Mode 63 2 0, Mode 63 2 0, Mode 63 2 0, Mode 63 2 0, Mode 63 2 0, Mode 63 2 0, Mode 63 2 0,
     Mode 63 2 0, Mode 63 2 0, Mode 63 2 0, Mode 63 2 0, Mode 63 2 0, Mode 63 2 0, Mode 63 2 0,
     Mode 63 2 0, Mode 63 2 0, Mode 63 2 0, Mode 63 2 0, Mode 63 2 0, Mode 63 2 0, Mode 63 2 0,
     Mode 63 2 0, Mode 63 2 0, Mode 63 2 0, Mode 63 2 0, Mode 63 2 0, Mode 63 2 0, Mode 63 2 0,
     Mode 63 2 0, Mode 63 2 0, Mode 63 2 0, Mode 63 2 0, Mode 63 2 0, Mode 63 2 0, Mode 63 2 0,
     Mode 63 2 0, Mode 63 2 0, Mode 63 2 0, Mode 63 2 0, Mode 63 2 0, Mode 63 2 0, Mode 63 2 0,
     Mode 63 2 0, Mode 63 2 0, Mode 63 2 0, Mode 63 2 0, Mode 63 2 0, Mode 63 2 0, Mode 63 2 0,
     Mode 63 2 0, Mode 63 2 0, Mode 63 2 0]"

text \<open>Lines 43449 to 43598.\<close>

definition ts_lex_modes_25 :: "TSLexerMode list" where
  "ts_lex_modes_25 =
    [Mode 63 2 0, Mode 63 2 0, Mode 63 2 0, Mode 63 2 0, Mode 63 2 0, Mode 63 2 0, Mode 63 2 0,
     Mode 63 2 0, Mode 63 2 0, Mode 63 2 0, Mode 63 2 0, Mode 63 2 0, Mode 63 2 0, Mode 63 2 0,
     Mode 63 2 0, Mode 63 2 0, Mode 63 2 0, Mode 63 2 0, Mode 63 2 0, Mode 63 2 0, Mode 63 2 0,
     Mode 63 2 0, Mode 63 2 0, Mode 63 2 0, Mode 63 2 0, Mode 63 2 0, Mode 63 2 0, Mode 63 2 0,
     Mode 63 2 0, Mode 63 2 0, Mode 63 2 0, Mode 63 2 0, Mode 63 2 0, Mode 63 2 0, Mode 63 2 0,
     Mode 63 2 0, Mode 63 2 0, Mode 63 2 0, Mode 63 2 0, Mode 63 2 0, Mode 63 2 0, Mode 63 2 0,
     Mode 63 2 0, Mode 63 2 0, Mode 63 2 0, Mode 63 2 0, Mode 63 2 0, Mode 63 2 0, Mode 63 2 0,
     Mode 63 2 0, Mode 63 2 0, Mode 63 2 0, Mode 63 2 0, Mode 63 2 0, Mode 63 2 0, Mode 63 2 0,
     Mode 63 2 0, Mode 63 2 0, Mode 63 2 0, Mode 63 2 0, Mode 63 2 0, Mode 63 2 0, Mode 63 2 0,
     Mode 63 2 0, Mode 63 2 0, Mode 63 2 0, Mode 63 2 0, Mode 63 2 0, Mode 63 2 0, Mode 63 2 0,
     Mode 63 2 0, Mode 63 2 0, Mode 63 2 0, Mode 63 2 0, Mode 63 2 0, Mode 63 2 0, Mode 63 2 0,
     Mode 63 2 0, Mode 63 2 0, Mode 63 2 0, Mode 63 2 0, Mode 63 2 0, Mode 63 2 0, Mode 63 2 0,
     Mode 63 2 0, Mode 63 2 0, Mode 63 2 0, Mode 63 2 0, Mode 63 2 0, Mode 63 2 0, Mode 63 2 0,
     Mode 63 2 0, Mode 63 2 0, Mode 63 2 0, Mode 63 2 0, Mode 63 2 0, Mode 63 2 0, Mode 63 2 0,
     Mode 63 2 0, Mode 63 2 0, Mode 63 2 0, Mode 63 2 0, Mode 63 2 0, Mode 63 2 0, Mode 63 2 0,
     Mode 63 2 0, Mode 63 2 0, Mode 63 2 0, Mode 63 2 0, Mode 63 2 0, Mode 63 2 0, Mode 63 2 0,
     Mode 63 2 0, Mode 63 2 0, Mode 63 2 0, Mode 63 2 0, Mode 63 2 0, Mode 63 2 0, Mode 63 2 0,
     Mode 63 2 0, Mode 63 2 0, Mode 63 2 0, Mode 63 2 0, Mode 63 2 0, Mode 63 2 0, Mode 63 2 0,
     Mode 63 2 0, Mode 63 2 0, Mode 63 2 0, Mode 63 2 0, Mode 63 2 0, Mode 63 2 0, Mode 63 2 0,
     Mode 63 2 0, Mode 63 2 0, Mode 63 2 0, Mode 63 2 0, Mode 63 2 0, Mode 63 2 0, Mode 63 2 0,
     Mode 63 2 0, Mode 63 2 0, Mode 63 2 0, Mode 63 2 0, Mode 63 2 0, Mode 63 2 0, Mode 63 2 0,
     Mode 63 2 0, Mode 63 2 0, Mode 63 2 0]"

text \<open>Lines 43599 to 43748.\<close>

definition ts_lex_modes_26 :: "TSLexerMode list" where
  "ts_lex_modes_26 =
    [Mode 63 2 0, Mode 63 2 0, Mode 63 2 0, Mode 63 2 0, Mode 63 2 0, Mode 63 2 0, Mode 63 2 0,
     Mode 63 2 0, Mode 63 2 0, Mode 63 2 0, Mode 63 2 0, Mode 63 2 0, Mode 63 2 0, Mode 63 2 0,
     Mode 63 2 0, Mode 63 2 0, Mode 63 2 0, Mode 63 2 0, Mode 63 2 0, Mode 63 2 0, Mode 63 2 0,
     Mode 63 2 0, Mode 63 2 0, Mode 63 2 0, Mode 63 2 0, Mode 63 2 0, Mode 63 2 0, Mode 63 2 0,
     Mode 63 2 0, Mode 63 2 0, Mode 63 2 0, Mode 63 2 0, Mode 63 2 0, Mode 63 2 0, Mode 63 2 0,
     Mode 63 2 0, Mode 63 2 0, Mode 63 2 0, Mode 63 2 0, Mode 63 2 0, Mode 63 2 0, Mode 63 2 0,
     Mode 63 2 0, Mode 63 2 0, Mode 63 2 0, Mode 63 2 0, Mode 63 2 0, Mode 63 2 0, Mode 63 2 0,
     Mode 63 2 0, Mode 63 2 0, Mode 63 2 0, Mode 63 2 0, Mode 63 2 0, Mode 63 2 0, Mode 63 2 0,
     Mode 63 2 0, Mode 63 2 0, Mode 63 2 0, Mode 63 2 0, Mode 63 2 0, Mode 63 2 0, Mode 63 2 0,
     Mode 63 2 0, Mode 63 2 0, Mode 63 2 0, Mode 63 2 0, Mode 63 2 0, Mode 63 2 0, Mode 63 2 0,
     Mode 63 2 0, Mode 63 2 0, Mode 63 2 0, Mode 63 2 0, Mode 63 2 0, Mode 63 2 0, Mode 63 2 0,
     Mode 63 2 0, Mode 63 2 0, Mode 63 2 0, Mode 63 2 0, Mode 63 2 0, Mode 63 2 0, Mode 63 2 0,
     Mode 63 2 0, Mode 63 2 0, Mode 63 2 0, Mode 63 2 0, Mode 63 2 0, Mode 63 2 0, Mode 63 2 0,
     Mode 63 2 0, Mode 63 2 0, Mode 63 2 0, Mode 63 2 0, Mode 63 2 0, Mode 63 2 0, Mode 63 2 0,
     Mode 63 2 0, Mode 63 2 0, Mode 63 2 0, Mode 63 2 0, Mode 63 2 0, Mode 63 2 0, Mode 63 2 0,
     Mode 63 2 0, Mode 63 2 0, Mode 63 2 0, Mode 63 2 0, Mode 63 2 0, Mode 63 2 0, Mode 63 2 0,
     Mode 63 2 0, Mode 63 2 0, Mode 63 2 0, Mode 63 2 0, Mode 63 2 0, Mode 63 2 0, Mode 63 2 0,
     Mode 63 2 0, Mode 63 2 0, Mode 63 2 0, Mode 63 2 0, Mode 63 2 0, Mode 63 2 0, Mode 63 2 0,
     Mode 63 2 0, Mode 63 2 0, Mode 63 2 0, Mode 63 2 0, Mode 63 2 0, Mode 63 2 0, Mode 63 2 0,
     Mode 63 2 0, Mode 63 2 0, Mode 63 2 0, Mode 63 2 0, Mode 63 2 0, Mode 63 2 0, Mode 63 2 0,
     Mode 63 2 0, Mode 63 2 0, Mode 63 2 0, Mode 63 2 0, Mode 63 2 0, Mode 63 2 0, Mode 63 2 0,
     Mode 63 2 0, Mode 63 2 0, Mode 63 2 0]"

text \<open>Lines 43749 to 43898.\<close>

definition ts_lex_modes_27 :: "TSLexerMode list" where
  "ts_lex_modes_27 =
    [Mode 63 2 0, Mode 63 2 0, Mode 63 2 0, Mode 63 2 0, Mode 63 2 0, Mode 63 2 0, Mode 63 2 0,
     Mode 63 2 0, Mode 63 2 0, Mode 63 2 0, Mode 63 2 0, Mode 63 2 0, Mode 63 2 0, Mode 63 2 0,
     Mode 63 2 0, Mode 63 2 0, Mode 63 2 0, Mode 63 2 0, Mode 63 2 0, Mode 63 2 0, Mode 63 2 0,
     Mode 63 2 0, Mode 63 2 0, Mode 63 2 0, Mode 63 2 0, Mode 63 2 0, Mode 63 2 0, Mode 63 2 0,
     Mode 63 2 0, Mode 63 2 0, Mode 63 2 0, Mode 63 2 0, Mode 63 2 0, Mode 63 2 0, Mode 63 2 0,
     Mode 63 2 0, Mode 63 2 0, Mode 63 2 0, Mode 63 2 0, Mode 63 2 0, Mode 63 2 0, Mode 63 2 0,
     Mode 63 2 0, Mode 63 2 0, Mode 63 2 0, Mode 63 2 0, Mode 63 2 0, Mode 63 2 0, Mode 63 2 0,
     Mode 63 2 0, Mode 63 2 0, Mode 63 2 0, Mode 63 2 0, Mode 63 2 0, Mode 63 2 0, Mode 63 2 0,
     Mode 63 2 0, Mode 63 2 0, Mode 63 2 0, Mode 63 2 0, Mode 63 2 0, Mode 63 2 0, Mode 63 2 0,
     Mode 63 2 0, Mode 63 2 0, Mode 63 2 0, Mode 63 2 0, Mode 63 2 0, Mode 63 2 0, Mode 63 2 0,
     Mode 63 2 0, Mode 63 2 0, Mode 63 2 0, Mode 63 2 0, Mode 63 2 0, Mode 63 2 0, Mode 63 2 0,
     Mode 63 2 0, Mode 63 2 0, Mode 63 2 0, Mode 63 2 0, Mode 63 2 0, Mode 63 2 0, Mode 63 2 0,
     Mode 63 2 0, Mode 63 2 0, Mode 63 2 0, Mode 63 2 0, Mode 63 2 0, Mode 63 2 0, Mode 63 2 0,
     Mode 63 2 0, Mode 63 2 0, Mode 63 2 0, Mode 63 2 0, Mode 63 2 0, Mode 63 2 0, Mode 63 2 0,
     Mode 63 2 0, Mode 63 2 0, Mode 63 2 0, Mode 63 2 0, Mode 63 2 0, Mode 63 2 0, Mode 63 2 0,
     Mode 63 2 0, Mode 63 2 0, Mode 63 2 0, Mode 63 2 0, Mode 63 2 0, Mode 63 2 0, Mode 63 2 0,
     Mode 63 2 0, Mode 63 2 0, Mode 63 2 0, Mode 63 2 0, Mode 63 2 0, Mode 63 2 0, Mode 63 2 0,
     Mode 63 2 0, Mode 63 2 0, Mode 63 2 0, Mode 63 2 0, Mode 63 2 0, Mode 63 2 0, Mode 63 2 0,
     Mode 63 2 0, Mode 63 2 0, Mode 63 2 0, Mode 63 2 0, Mode 63 2 0, Mode 63 2 0, Mode 63 2 0,
     Mode 63 2 0, Mode 63 2 0, Mode 63 2 0, Mode 63 2 0, Mode 63 2 0, Mode 63 2 0, Mode 63 2 0,
     Mode 63 2 0, Mode 63 2 0, Mode 63 2 0, Mode 63 2 0, Mode 63 2 0, Mode 63 2 0, Mode 63 2 0,
     Mode 63 2 0, Mode 63 2 0, Mode 63 2 0]"

text \<open>Lines 43899 to 44048.\<close>

definition ts_lex_modes_28 :: "TSLexerMode list" where
  "ts_lex_modes_28 =
    [Mode 63 2 0, Mode 63 2 0, Mode 63 2 0, Mode 63 2 0, Mode 63 2 0, Mode 63 2 0, Mode 63 2 0,
     Mode 63 2 0, Mode 63 2 0, Mode 63 2 0, Mode 63 2 0, Mode 63 2 0, Mode 63 2 0, Mode 63 2 0,
     Mode 63 2 0, Mode 63 2 0, Mode 63 2 0, Mode 63 2 0, Mode 63 2 0, Mode 63 2 0, Mode 63 2 0,
     Mode 63 2 0, Mode 63 2 0, Mode 63 2 0, Mode 63 2 0, Mode 63 2 0, Mode 63 2 0, Mode 63 2 0,
     Mode 63 2 0, Mode 63 2 0, Mode 63 2 0, Mode 63 2 0, Mode 63 2 0, Mode 63 2 0, Mode 63 2 0,
     Mode 63 2 0, Mode 63 2 0, Mode 63 2 0, Mode 63 2 0, Mode 63 2 0, Mode 63 2 0, Mode 63 2 0,
     Mode 63 2 0, Mode 63 2 0, Mode 63 2 0, Mode 63 2 0, Mode 63 2 0, Mode 63 2 0, Mode 63 2 0,
     Mode 63 2 0, Mode 63 2 0, Mode 63 2 0, Mode 63 2 0, Mode 63 2 0, Mode 63 2 0, Mode 63 2 0,
     Mode 63 2 0, Mode 63 2 0, Mode 63 2 0, Mode 63 2 0, Mode 63 2 0, Mode 63 2 0, Mode 63 2 0,
     Mode 63 2 0, Mode 63 2 0, Mode 63 2 0, Mode 63 2 0, Mode 63 2 0, Mode 63 2 0, Mode 63 2 0,
     Mode 63 2 0, Mode 63 2 0, Mode 63 2 0, Mode 63 2 0, Mode 63 2 0, Mode 63 2 0, Mode 63 2 0,
     Mode 63 2 0, Mode 63 2 0, Mode 63 2 0, Mode 63 2 0, Mode 63 2 0, Mode 63 2 0, Mode 63 2 0,
     Mode 63 2 0, Mode 63 2 0, Mode 63 2 0, Mode 63 2 0, Mode 63 2 0, Mode 63 2 0, Mode 63 2 0,
     Mode 63 2 0, Mode 63 2 0, Mode 63 2 0, Mode 63 2 0, Mode 63 2 0, Mode 63 2 0, Mode 63 2 0,
     Mode 63 2 0, Mode 63 2 0, Mode 63 2 0, Mode 63 2 0, Mode 63 2 0, Mode 63 2 0, Mode 63 2 0,
     Mode 63 2 0, Mode 63 2 0, Mode 63 2 0, Mode 63 2 0, Mode 63 2 0, Mode 63 2 0, Mode 63 2 0,
     Mode 63 2 0, Mode 63 2 0, Mode 63 2 0, Mode 63 2 0, Mode 63 2 0, Mode 63 2 0, Mode 63 2 0,
     Mode 63 2 0, Mode 63 2 0, Mode 63 2 0, Mode 63 2 0, Mode 63 2 0, Mode 63 2 0, Mode 63 2 0,
     Mode 63 2 0, Mode 63 2 0, Mode 63 2 0, Mode 63 2 0, Mode 63 2 0, Mode 63 2 0, Mode 63 2 0,
     Mode 63 2 0, Mode 63 2 0, Mode 63 2 0, Mode 63 2 0, Mode 63 2 0, Mode 63 2 0, Mode 63 2 0,
     Mode 63 2 0, Mode 63 2 0, Mode 63 2 0, Mode 63 2 0, Mode 63 2 0, Mode 63 2 0, Mode 63 2 0,
     Mode 63 2 0, Mode 63 2 0, Mode 63 2 0]"

text \<open>Lines 44049 to 44198.\<close>

definition ts_lex_modes_29 :: "TSLexerMode list" where
  "ts_lex_modes_29 =
    [Mode 63 2 0, Mode 63 2 0, Mode 63 2 0, Mode 63 2 0, Mode 63 2 0, Mode 63 2 0, Mode 63 2 0,
     Mode 63 2 0, Mode 63 2 0, Mode 63 2 0, Mode 63 2 0, Mode 63 2 0, Mode 63 2 0, Mode 63 2 0,
     Mode 63 2 0, Mode 63 2 0, Mode 63 2 0, Mode 63 2 0, Mode 63 2 0, Mode 63 2 0, Mode 63 2 0,
     Mode 63 2 0, Mode 63 2 0, Mode 63 2 0, Mode 63 2 0, Mode 63 2 0, Mode 63 2 0, Mode 63 2 0,
     Mode 63 2 0, Mode 63 2 0, Mode 63 2 0, Mode 63 2 0, Mode 63 2 0, Mode 63 2 0, Mode 63 2 0,
     Mode 63 2 0, Mode 63 2 0, Mode 63 2 0, Mode 63 2 0, Mode 63 2 0, Mode 63 2 0, Mode 63 2 0,
     Mode 63 2 0, Mode 63 2 0, Mode 63 2 0, Mode 63 2 0, Mode 63 2 0, Mode 63 2 0, Mode 63 2 0,
     Mode 63 2 0, Mode 63 2 0, Mode 63 2 0, Mode 63 2 0, Mode 63 2 0, Mode 63 2 0, Mode 63 2 0,
     Mode 63 2 0, Mode 63 2 0, Mode 63 2 0, Mode 63 2 0, Mode 63 2 0, Mode 63 2 0, Mode 63 2 0,
     Mode 63 2 0, Mode 63 2 0, Mode 63 2 0, Mode 63 2 0, Mode 63 2 0, Mode 63 2 0, Mode 63 2 0,
     Mode 63 2 0, Mode 63 2 0, Mode 63 2 0, Mode 63 2 0, Mode 63 2 0, Mode 63 2 0, Mode 63 2 0,
     Mode 63 2 0, Mode 63 2 0, Mode 63 2 0, Mode 63 2 0, Mode 63 2 0, Mode 63 2 0, Mode 63 2 0,
     Mode 63 2 0, Mode 63 2 0, Mode 63 2 0, Mode 63 2 0, Mode 63 2 0, Mode 63 2 0, Mode 63 2 0,
     Mode 63 2 0, Mode 63 2 0, Mode 63 2 0, Mode 63 2 0, Mode 63 2 0, Mode 63 2 0, Mode 63 2 0,
     Mode 63 2 0, Mode 63 2 0, Mode 63 2 0, Mode 63 2 0, Mode 63 2 0, Mode 63 2 0, Mode 63 2 0,
     Mode 63 2 0, Mode 63 2 0, Mode 63 2 0, Mode 63 2 0, Mode 63 2 0, Mode 63 2 0, Mode 63 2 0,
     Mode 63 2 0, Mode 63 2 0, Mode 63 2 0, Mode 63 2 0, Mode 63 2 0, Mode 63 2 0, Mode 63 2 0,
     Mode 63 2 0, Mode 63 2 0, Mode 63 2 0, Mode 63 2 0, Mode 63 2 0, Mode 63 2 0, Mode 63 2 0,
     Mode 63 2 0, Mode 63 2 0, Mode 63 2 0, Mode 63 2 0, Mode 63 2 0, Mode 63 2 0, Mode 63 2 0,
     Mode 63 2 0, Mode 63 2 0, Mode 63 2 0, Mode 63 2 0, Mode 63 2 0, Mode 63 2 0, Mode 63 2 0,
     Mode 63 2 0, Mode 63 2 0, Mode 63 2 0, Mode 63 2 0, Mode 63 2 0, Mode 63 2 0, Mode 63 2 0,
     Mode 63 2 0, Mode 63 2 0, Mode 63 2 0]"

text \<open>Lines 44199 to 44348.\<close>

definition ts_lex_modes_30 :: "TSLexerMode list" where
  "ts_lex_modes_30 =
    [Mode 63 2 0, Mode 63 2 0, Mode 63 2 0, Mode 63 2 0, Mode 63 2 0, Mode 63 2 0, Mode 63 2 0,
     Mode 63 2 0, Mode 63 2 0, Mode 63 2 0, Mode 63 2 0, Mode 63 2 0, Mode 63 2 0, Mode 63 2 0,
     Mode 63 2 0, Mode 63 2 0, Mode 63 2 0, Mode 63 2 0, Mode 63 2 0, Mode 63 2 0, Mode 63 2 0,
     Mode 63 2 0, Mode 63 2 0, Mode 63 2 0, Mode 63 2 0, Mode 63 2 0, Mode 63 2 0, Mode 63 2 0,
     Mode 63 2 0, Mode 63 2 0, Mode 63 2 0, Mode 63 2 0, Mode 63 2 0, Mode 63 2 0, Mode 63 2 0,
     Mode 63 2 0, Mode 63 2 0, Mode 63 2 0, Mode 63 2 0, Mode 63 2 0, Mode 63 2 0, Mode 63 2 0,
     Mode 63 2 0, Mode 63 2 0, Mode 63 2 0, Mode 63 2 0, Mode 63 2 0, Mode 63 2 0, Mode 63 2 0,
     Mode 63 2 0, Mode 63 2 0, Mode 63 2 0, Mode 63 2 0, Mode 63 2 0, Mode 63 2 0, Mode 63 2 0,
     Mode 63 2 0, Mode 63 2 0, Mode 63 2 0, Mode 63 2 0, Mode 63 2 0, Mode 63 2 0, Mode 63 2 0,
     Mode 63 2 0, Mode 63 2 0, Mode 63 2 0, Mode 63 2 0, Mode 63 2 0, Mode 63 2 0, Mode 63 2 0,
     Mode 63 2 0, Mode 63 2 0, Mode 63 2 0, Mode 63 2 0, Mode 63 2 0, Mode 63 2 0, Mode 63 2 0,
     Mode 63 2 0, Mode 63 2 0, Mode 63 2 0, Mode 63 2 0, Mode 63 2 0, Mode 63 2 0, Mode 63 2 0,
     Mode 63 2 0, Mode 63 2 0, Mode 63 2 0, Mode 63 2 0, Mode 63 2 0, Mode 63 2 0, Mode 63 2 0,
     Mode 63 2 0, Mode 63 2 0, Mode 63 2 0, Mode 63 2 0, Mode 63 2 0, Mode 63 2 0, Mode 63 2 0,
     Mode 63 2 0, Mode 63 2 0, Mode 63 2 0, Mode 63 2 0, Mode 63 2 0, Mode 63 2 0, Mode 63 2 0,
     Mode 63 2 0, Mode 63 2 0, Mode 63 2 0, Mode 63 2 0, Mode 63 2 0, Mode 63 2 0, Mode 63 2 0,
     Mode 63 2 0, Mode 63 2 0, Mode 63 2 0, Mode 63 2 0, Mode 63 2 0, Mode 63 2 0, Mode 63 2 0,
     Mode 63 2 0, Mode 63 2 0, Mode 63 2 0, Mode 63 2 0, Mode 63 2 0, Mode 63 2 0, Mode 63 2 0,
     Mode 63 2 0, Mode 63 2 0, Mode 63 2 0, Mode 63 2 0, Mode 63 2 0, Mode 63 2 0, Mode 63 2 0,
     Mode 63 2 0, Mode 63 2 0, Mode 63 2 0, Mode 63 2 0, Mode 63 2 0, Mode 63 2 0, Mode 63 2 0,
     Mode 63 2 0, Mode 63 2 0, Mode 63 2 0, Mode 63 2 0, Mode 63 2 0, Mode 63 2 0, Mode 63 2 0,
     Mode 63 2 0, Mode 63 2 0, Mode 63 2 0]"

text \<open>Lines 44349 to 44498.\<close>

definition ts_lex_modes_31 :: "TSLexerMode list" where
  "ts_lex_modes_31 =
    [Mode 63 2 0, Mode 63 2 0, Mode 63 2 0, Mode 63 2 0, Mode 63 2 0, Mode 63 2 0, Mode 63 2 0,
     Mode 63 2 0, Mode 63 2 0, Mode 63 2 0, Mode 63 2 0, Mode 63 2 0, Mode 63 2 0, Mode 63 2 0,
     Mode 63 2 0, Mode 63 2 0, Mode 63 2 0, Mode 63 2 0, Mode 63 2 0, Mode 63 2 0, Mode 63 2 0,
     Mode 63 2 0, Mode 63 2 0, Mode 63 2 0, Mode 63 2 0, Mode 63 2 0, Mode 63 2 0, Mode 63 2 0,
     Mode 63 2 0, Mode 63 2 0, Mode 63 2 0, Mode 63 2 0, Mode 63 2 0, Mode 63 2 0, Mode 63 2 0,
     Mode 63 2 0, Mode 63 2 0, Mode 63 2 0, Mode 63 2 0, Mode 63 2 0, Mode 63 2 0, Mode 63 2 0,
     Mode 63 2 0, Mode 63 2 0, Mode 63 2 0, Mode 63 2 0, Mode 63 2 0, Mode 63 2 0, Mode 63 2 0,
     Mode 63 2 0, Mode 63 2 0, Mode 63 2 0, Mode 63 2 0, Mode 63 2 0, Mode 63 2 0, Mode 63 2 0,
     Mode 63 2 0, Mode 63 2 0, Mode 63 2 0, Mode 63 2 0, Mode 63 2 0, Mode 63 2 0, Mode 63 2 0,
     Mode 63 2 0, Mode 63 2 0, Mode 63 2 0, Mode 63 2 0, Mode 63 2 0, Mode 63 2 0, Mode 63 2 0,
     Mode 63 2 0, Mode 63 2 0, Mode 63 2 0, Mode 63 2 0, Mode 63 2 0, Mode 63 2 0, Mode 63 2 0,
     Mode 63 2 0, Mode 63 2 0, Mode 63 2 0, Mode 63 2 0, Mode 63 2 0, Mode 63 2 0, Mode 63 2 0,
     Mode 63 2 0, Mode 63 2 0, Mode 63 2 0, Mode 63 2 0, Mode 63 2 0, Mode 63 2 0, Mode 63 2 0,
     Mode 63 2 0, Mode 63 2 0, Mode 63 2 0, Mode 63 2 0, Mode 63 2 0, Mode 63 2 0, Mode 63 2 0,
     Mode 63 2 0, Mode 63 2 0, Mode 63 2 0, Mode 63 2 0, Mode 63 2 0, Mode 63 2 0, Mode 63 2 0,
     Mode 63 2 0, Mode 63 2 0, Mode 63 2 0, Mode 63 2 0, Mode 63 2 0, Mode 63 2 0, Mode 63 2 0,
     Mode 63 2 0, Mode 63 2 0, Mode 63 2 0, Mode 63 2 0, Mode 63 2 0, Mode 63 2 0, Mode 63 2 0,
     Mode 63 2 0, Mode 63 2 0, Mode 63 2 0, Mode 63 2 0, Mode 63 2 0, Mode 63 2 0, Mode 63 2 0,
     Mode 63 2 0, Mode 63 2 0, Mode 63 2 0, Mode 63 2 0, Mode 63 2 0, Mode 63 2 0, Mode 63 2 0,
     Mode 63 2 0, Mode 63 2 0, Mode 63 2 0, Mode 63 2 0, Mode 63 2 0, Mode 63 2 0, Mode 63 2 0,
     Mode 63 2 0, Mode 63 2 0, Mode 63 2 0, Mode 63 2 0, Mode 63 2 0, Mode 63 2 0, Mode 63 2 0,
     Mode 63 2 0, Mode 63 2 0, Mode 63 2 0]"

text \<open>Lines 44499 to 44648.\<close>

definition ts_lex_modes_32 :: "TSLexerMode list" where
  "ts_lex_modes_32 =
    [Mode 63 2 0, Mode 63 2 0, Mode 63 2 0, Mode 63 2 0, Mode 63 2 0, Mode 63 2 0, Mode 63 2 0,
     Mode 63 2 0, Mode 63 2 0, Mode 63 2 0, Mode 63 2 0, Mode 63 2 0, Mode 63 2 0, Mode 63 2 0,
     Mode 63 2 0, Mode 63 2 0, Mode 63 2 0, Mode 63 2 0, Mode 63 2 0, Mode 63 2 0, Mode 63 2 0,
     Mode 63 2 0, Mode 63 2 0, Mode 63 2 0, Mode 63 2 0, Mode 63 2 0, Mode 63 2 0, Mode 63 2 0,
     Mode 63 2 0, Mode 63 2 0, Mode 63 2 0, Mode 63 2 0, Mode 63 2 0, Mode 63 2 0, Mode 63 2 0,
     Mode 63 2 0, Mode 63 2 0, Mode 63 2 0, Mode 63 2 0, Mode 63 2 0, Mode 63 2 0, Mode 63 2 0,
     Mode 63 2 0, Mode 63 2 0, Mode 63 2 0, Mode 63 2 0, Mode 63 2 0, Mode 63 2 0, Mode 63 2 0,
     Mode 63 2 0, Mode 63 2 0, Mode 63 2 0, Mode 63 2 0, Mode 63 2 0, Mode 63 2 0, Mode 63 2 0,
     Mode 63 2 0, Mode 63 2 0, Mode 63 2 0, Mode 63 2 0, Mode 63 2 0, Mode 63 2 0, Mode 63 2 0,
     Mode 63 2 0, Mode 63 2 0, Mode 63 2 0, Mode 63 2 0, Mode 63 2 0, Mode 63 2 0, Mode 63 2 0,
     Mode 63 2 0, Mode 63 2 0, Mode 63 2 0, Mode 63 2 0, Mode 63 2 0, Mode 63 2 0, Mode 63 2 0,
     Mode 63 2 0, Mode 63 2 0, Mode 63 2 0, Mode 63 2 0, Mode 63 2 0, Mode 63 2 0, Mode 63 2 0,
     Mode 63 2 0, Mode 63 2 0, Mode 63 2 0, Mode 63 2 0, Mode 63 2 0, Mode 63 2 0, Mode 63 2 0,
     Mode 63 2 0, Mode 63 2 0, Mode 63 2 0, Mode 63 2 0, Mode 63 2 0, Mode 63 2 0, Mode 63 2 0,
     Mode 63 2 0, Mode 63 2 0, Mode 63 2 0, Mode 63 2 0, Mode 63 2 0, Mode 63 2 0, Mode 63 2 0,
     Mode 63 2 0, Mode 63 2 0, Mode 63 2 0, Mode 63 2 0, Mode 63 2 0, Mode 63 2 0, Mode 63 2 0,
     Mode 63 2 0, Mode 63 2 0, Mode 63 2 0, Mode 63 2 0, Mode 63 2 0, Mode 63 2 0, Mode 63 2 0,
     Mode 63 2 0, Mode 63 2 0, Mode 63 2 0, Mode 63 2 0, Mode 63 2 0, Mode 63 2 0, Mode 63 2 0,
     Mode 63 2 0, Mode 63 2 0, Mode 63 2 0, Mode 63 2 0, Mode 63 2 0, Mode 63 2 0, Mode 63 2 0,
     Mode 63 2 0, Mode 63 2 0, Mode 63 2 0, Mode 63 2 0, Mode 63 2 0, Mode 63 2 0, Mode 63 2 0,
     Mode 63 2 0, Mode 63 2 0, Mode 63 2 0, Mode 63 2 0, Mode 63 2 0, Mode 63 2 0, Mode 63 2 0,
     Mode 63 2 0, Mode 63 2 0, Mode 63 2 0]"

text \<open>Lines 44649 to 44798.\<close>

definition ts_lex_modes_33 :: "TSLexerMode list" where
  "ts_lex_modes_33 =
    [Mode 63 2 0, Mode 63 2 0, Mode 63 2 0, Mode 63 2 0, Mode 63 2 0, Mode 63 2 0, Mode 63 2 0,
     Mode 63 2 0, Mode 63 2 0, Mode 63 2 0, Mode 63 2 0, Mode 63 2 0, Mode 63 2 0, Mode 63 2 0,
     Mode 63 2 0, Mode 63 2 0, Mode 63 2 0, Mode 63 2 0, Mode 63 2 0, Mode 63 2 0, Mode 63 2 0,
     Mode 63 2 0, Mode 63 2 0, Mode 63 2 0, Mode 63 2 0, Mode 63 2 0, Mode 63 2 0, Mode 63 2 0,
     Mode 63 2 0, Mode 63 2 0, Mode 63 2 0, Mode 63 2 0, Mode 63 2 0, Mode 63 2 0, Mode 63 2 0,
     Mode 63 2 0, Mode 63 2 0, Mode 63 2 0, Mode 63 2 0, Mode 63 2 0, Mode 63 2 0, Mode 63 2 0,
     Mode 63 2 0, Mode 63 2 0, Mode 63 2 0, Mode 63 2 0, Mode 63 2 0, Mode 63 2 0, Mode 63 2 0,
     Mode 63 2 0, Mode 63 2 0, Mode 63 2 0, Mode 63 2 0, Mode 63 2 0, Mode 63 2 0, Mode 63 2 0,
     Mode 63 2 0, Mode 63 2 0, Mode 63 2 0, Mode 63 2 0, Mode 63 2 0, Mode 63 2 0, Mode 63 2 0,
     Mode 63 2 0, Mode 63 2 0, Mode 63 2 0, Mode 63 2 0, Mode 63 2 0, Mode 63 2 0, Mode 63 2 0,
     Mode 63 2 0, Mode 63 2 0, Mode 63 2 0, Mode 63 2 0, Mode 63 2 0, Mode 63 2 0, Mode 63 2 0,
     Mode 63 2 0, Mode 63 2 0, Mode 63 2 0, Mode 63 2 0, Mode 63 2 0, Mode 63 2 0, Mode 63 2 0,
     Mode 63 2 0, Mode 63 2 0, Mode 63 2 0, Mode 63 2 0, Mode 63 2 0, Mode 63 2 0, Mode 63 2 0,
     Mode 63 2 0, Mode 63 2 0, Mode 63 2 0, Mode 63 2 0, Mode 63 2 0, Mode 63 2 0, Mode 63 2 0,
     Mode 63 2 0, Mode 63 2 0, Mode 63 2 0, Mode 63 2 0, Mode 63 2 0, Mode 63 2 0, Mode 63 2 0,
     Mode 63 2 0, Mode 63 2 0, Mode 63 2 0, Mode 63 2 0, Mode 63 2 0, Mode 63 2 0, Mode 63 2 0,
     Mode 63 2 0, Mode 63 2 0, Mode 63 2 0, Mode 63 2 0, Mode 63 2 0, Mode 63 2 0, Mode 63 2 0,
     Mode 63 2 0, Mode 63 2 0, Mode 63 2 0, Mode 63 2 0, Mode 63 2 0, Mode 63 2 0, Mode 63 2 0,
     Mode 63 2 0, Mode 63 2 0, Mode 63 2 0, Mode 63 2 0, Mode 63 2 0, Mode 63 2 0, Mode 63 2 0,
     Mode 63 2 0, Mode 63 2 0, Mode 63 2 0, Mode 63 2 0, Mode 63 2 0, Mode 63 2 0, Mode 63 2 0,
     Mode 63 2 0, Mode 63 2 0, Mode 63 2 0, Mode 63 2 0, Mode 63 2 0, Mode 63 2 0, Mode 63 2 0,
     Mode 63 2 0, Mode 63 2 0, Mode 63 2 0]"

text \<open>Lines 44799 to 44948.\<close>

definition ts_lex_modes_34 :: "TSLexerMode list" where
  "ts_lex_modes_34 =
    [Mode 63 2 0, Mode 63 2 0, Mode 63 2 0, Mode 63 2 0, Mode 63 2 0, Mode 63 2 0, Mode 63 2 0,
     Mode 63 2 0, Mode 63 2 0, Mode 63 2 0, Mode 63 2 0, Mode 63 2 0, Mode 63 2 0, Mode 63 2 0,
     Mode 63 2 0, Mode 63 2 0, Mode 63 2 0, Mode 63 2 0, Mode 63 2 0, Mode 63 2 0, Mode 63 2 0,
     Mode 63 2 0, Mode 63 2 0, Mode 63 2 0, Mode 63 2 0, Mode 63 2 0, Mode 63 2 0, Mode 63 2 0,
     Mode 63 2 0, Mode 63 2 0, Mode 63 2 0, Mode 63 2 0, Mode 63 2 0, Mode 63 2 0, Mode 63 2 0,
     Mode 63 2 0, Mode 63 2 0, Mode 63 2 0, Mode 63 2 0, Mode 63 2 0, Mode 63 2 0, Mode 63 2 0,
     Mode 63 2 0, Mode 63 2 0, Mode 63 2 0, Mode 63 2 0, Mode 63 2 0, Mode 63 2 0, Mode 63 2 0,
     Mode 63 2 0, Mode 63 2 0, Mode 63 2 0, Mode 63 2 0, Mode 63 2 0, Mode 63 2 0, Mode 63 2 0,
     Mode 63 2 0, Mode 63 2 0, Mode 63 2 0, Mode 63 2 0, Mode 63 2 0, Mode 63 2 0, Mode 63 2 0,
     Mode 63 2 0, Mode 63 2 0, Mode 63 2 0, Mode 63 2 0, Mode 63 2 0, Mode 63 2 0, Mode 63 2 0,
     Mode 63 2 0, Mode 63 2 0, Mode 63 2 0, Mode 63 2 0, Mode 63 2 0, Mode 63 2 0, Mode 63 2 0,
     Mode 63 2 0, Mode 63 2 0, Mode 63 2 0, Mode 63 2 0, Mode 63 2 0, Mode 63 2 0, Mode 63 2 0,
     Mode 63 2 0, Mode 63 2 0, Mode 63 2 0, Mode 63 2 0, Mode 63 2 0, Mode 63 2 0, Mode 63 2 0,
     Mode 63 2 0, Mode 63 2 0, Mode 63 2 0, Mode 63 2 0, Mode 63 2 0, Mode 63 2 0, Mode 63 2 0,
     Mode 63 2 0, Mode 63 2 0, Mode 63 2 0, Mode 63 2 0, Mode 63 2 0, Mode 63 2 0, Mode 63 2 0,
     Mode 63 2 0, Mode 63 2 0, Mode 63 2 0, Mode 63 2 0, Mode 63 2 0, Mode 63 2 0, Mode 63 2 0,
     Mode 63 2 0, Mode 63 2 0, Mode 63 2 0, Mode 63 2 0, Mode 63 2 0, Mode 63 2 0, Mode 63 2 0,
     Mode 63 2 0, Mode 63 2 0, Mode 63 2 0, Mode 63 2 0, Mode 63 2 0, Mode 63 2 0, Mode 63 2 0,
     Mode 63 2 0, Mode 63 2 0, Mode 63 2 0, Mode 63 2 0, Mode 63 2 0, Mode 63 2 0, Mode 63 2 0,
     Mode 63 2 0, Mode 63 2 0, Mode 63 2 0, Mode 63 2 0, Mode 63 2 0, Mode 63 2 0, Mode 63 2 0,
     Mode 63 2 0, Mode 63 2 0, Mode 63 2 0, Mode 63 2 0, Mode 63 2 0, Mode 63 2 0, Mode 63 2 0,
     Mode 63 2 0, Mode 63 2 0, Mode 63 2 0]"

text \<open>Lines 44949 to 45098.\<close>

definition ts_lex_modes_35 :: "TSLexerMode list" where
  "ts_lex_modes_35 =
    [Mode 63 2 0, Mode 63 2 0, Mode 63 2 0, Mode 63 2 0, Mode 63 2 0, Mode 63 2 0, Mode 63 2 0,
     Mode 63 2 0, Mode 63 2 0, Mode 63 2 0, Mode 63 2 0, Mode 63 2 0, Mode 63 2 0, Mode 63 2 0,
     Mode 63 2 0, Mode 63 2 0, Mode 63 2 0, Mode 63 2 0, Mode 63 2 0, Mode 63 2 0, Mode 63 2 0,
     Mode 63 2 0, Mode 63 2 0, Mode 63 2 0, Mode 63 2 0, Mode 63 2 0, Mode 63 2 0, Mode 63 2 0,
     Mode 63 2 0, Mode 63 2 0, Mode 63 2 0, Mode 63 2 0, Mode 63 2 0, Mode 63 2 0, Mode 63 2 0,
     Mode 63 2 0, Mode 63 2 0, Mode 63 2 0, Mode 63 2 0, Mode 63 2 0, Mode 63 2 0, Mode 63 2 0,
     Mode 63 2 0, Mode 63 2 0, Mode 63 2 0, Mode 63 2 0, Mode 63 2 0, Mode 63 2 0, Mode 63 2 0,
     Mode 63 2 0, Mode 63 2 0, Mode 63 2 0, Mode 63 2 0, Mode 63 2 0, Mode 63 2 0, Mode 63 2 0,
     Mode 63 2 0, Mode 63 2 0, Mode 63 2 0, Mode 63 2 0, Mode 63 2 0, Mode 63 2 0, Mode 63 2 0,
     Mode 63 2 0, Mode 63 2 0, Mode 63 2 0, Mode 63 2 0, Mode 63 2 0, Mode 63 2 0, Mode 63 2 0,
     Mode 63 2 0, Mode 63 2 0, Mode 63 2 0, Mode 63 2 0, Mode 63 2 0, Mode 63 2 0, Mode 63 2 0,
     Mode 63 2 0, Mode 63 2 0, Mode 63 2 0, Mode 63 2 0, Mode 63 2 0, Mode 63 2 0, Mode 63 2 0,
     Mode 63 2 0, Mode 63 2 0, Mode 63 2 0, Mode 63 2 0, Mode 63 2 0, Mode 63 2 0, Mode 63 2 0,
     Mode 63 2 0, Mode 63 2 0, Mode 63 2 0, Mode 63 2 0, Mode 63 2 0, Mode 63 2 0, Mode 63 2 0,
     Mode 63 2 0, Mode 63 2 0, Mode 63 2 0, Mode 63 2 0, Mode 63 2 0, Mode 63 2 0, Mode 63 2 0,
     Mode 63 2 0, Mode 63 2 0, Mode 63 2 0, Mode 63 2 0, Mode 63 2 0, Mode 63 2 0, Mode 63 2 0,
     Mode 63 2 0, Mode 63 2 0, Mode 63 2 0, Mode 63 2 0, Mode 63 2 0, Mode 63 2 0, Mode 63 2 0,
     Mode 63 2 0, Mode 63 2 0, Mode 63 2 0, Mode 63 2 0, Mode 63 2 0, Mode 63 2 0, Mode 63 2 0,
     Mode 63 2 0, Mode 63 2 0, Mode 63 2 0, Mode 63 2 0, Mode 63 2 0, Mode 63 2 0, Mode 63 2 0,
     Mode 63 2 0, Mode 63 2 0, Mode 63 2 0, Mode 63 2 0, Mode 63 2 0, Mode 63 2 0, Mode 63 2 0,
     Mode 63 2 0, Mode 63 2 0, Mode 63 2 0, Mode 63 2 0, Mode 63 2 0, Mode 63 2 0, Mode 63 2 0,
     Mode 63 2 0, Mode 63 2 0, Mode 63 2 0]"

text \<open>Lines 45099 to 45248.\<close>

definition ts_lex_modes_36 :: "TSLexerMode list" where
  "ts_lex_modes_36 =
    [Mode 63 2 0, Mode 63 2 0, Mode 63 2 0, Mode 63 2 0, Mode 63 2 0, Mode 63 2 0, Mode 63 2 0,
     Mode 63 2 0, Mode 63 2 0, Mode 63 2 0, Mode 63 2 0, Mode 63 2 0, Mode 63 2 0, Mode 63 2 0,
     Mode 63 2 0, Mode 63 2 0, Mode 63 2 0, Mode 63 2 0, Mode 63 2 0, Mode 63 2 0, Mode 63 2 0,
     Mode 63 2 0, Mode 63 2 0, Mode 63 2 0, Mode 63 2 0, Mode 63 2 0, Mode 63 2 0, Mode 63 2 0,
     Mode 63 2 0, Mode 63 2 0, Mode 63 2 0, Mode 63 2 0, Mode 63 2 0, Mode 63 2 0, Mode 63 2 0,
     Mode 63 2 0, Mode 63 2 0, Mode 63 2 0, Mode 63 2 0, Mode 63 2 0, Mode 63 2 0, Mode 63 2 0,
     Mode 63 2 0, Mode 63 2 0, Mode 63 2 0, Mode 63 2 0, Mode 63 2 0, Mode 63 2 0, Mode 63 2 0,
     Mode 63 2 0, Mode 63 2 0, Mode 63 2 0, Mode 63 2 0, Mode 63 2 0, Mode 63 2 0, Mode 63 2 0,
     Mode 63 2 0, Mode 63 2 0, Mode 63 2 0, Mode 63 2 0, Mode 63 2 0, Mode 63 2 0, Mode 63 2 0,
     Mode 63 2 0, Mode 63 2 0, Mode 63 2 0, Mode 63 2 0, Mode 63 2 0, Mode 63 2 0, Mode 63 2 0,
     Mode 63 2 0, Mode 63 2 0, Mode 63 2 0, Mode 63 2 0, Mode 63 2 0, Mode 63 2 0, Mode 63 2 0,
     Mode 63 2 0, Mode 63 2 0, Mode 63 2 0, Mode 63 2 0, Mode 63 2 0, Mode 63 2 0, Mode 63 2 0,
     Mode 63 2 0, Mode 63 2 0, Mode 63 2 0, Mode 63 2 0, Mode 63 2 0, Mode 63 2 0, Mode 63 2 0,
     Mode 63 2 0, Mode 63 2 0, Mode 63 2 0, Mode 63 2 0, Mode 63 2 0, Mode 63 2 0, Mode 63 2 0,
     Mode 63 2 0, Mode 63 2 0, Mode 63 2 0, Mode 63 2 0, Mode 63 2 0, Mode 63 2 0, Mode 63 2 0,
     Mode 63 2 0, Mode 63 2 0, Mode 63 2 0, Mode 63 2 0, Mode 63 2 0, Mode 63 2 0, Mode 63 2 0,
     Mode 63 2 0, Mode 63 2 0, Mode 63 2 0, Mode 63 2 0, Mode 63 2 0, Mode 63 2 0, Mode 63 2 0,
     Mode 63 2 0, Mode 63 2 0, Mode 63 2 0, Mode 63 2 0, Mode 63 2 0, Mode 63 2 0, Mode 63 2 0,
     Mode 63 2 0, Mode 63 2 0, Mode 63 2 0, Mode 63 2 0, Mode 63 2 0, Mode 63 2 0, Mode 63 2 0,
     Mode 63 2 0, Mode 63 2 0, Mode 63 2 0, Mode 63 2 0, Mode 63 2 0, Mode 63 2 0, Mode 63 2 0,
     Mode 63 2 0, Mode 63 2 0, Mode 63 2 0, Mode 63 2 0, Mode 63 2 0, Mode 63 2 0, Mode 63 2 0,
     Mode 63 2 0, Mode 63 2 0, Mode 63 2 0]"

text \<open>Lines 45249 to 45398.\<close>

definition ts_lex_modes_37 :: "TSLexerMode list" where
  "ts_lex_modes_37 =
    [Mode 63 2 0, Mode 63 2 0, Mode 63 2 0, Mode 63 2 0, Mode 63 2 0, Mode 63 2 0, Mode 63 2 0,
     Mode 63 2 0, Mode 63 2 0, Mode 63 2 0, Mode 63 2 0, Mode 63 2 0, Mode 63 2 0, Mode 63 2 0,
     Mode 63 2 0, Mode 63 2 0, Mode 63 2 0, Mode 63 2 0, Mode 63 2 0, Mode 63 2 0, Mode 63 2 0,
     Mode 63 2 0, Mode 63 2 0, Mode 63 2 0, Mode 63 2 0, Mode 63 2 0, Mode 63 2 0, Mode 63 2 0,
     Mode 63 2 0, Mode 63 2 0, Mode 63 2 0, Mode 63 2 0, Mode 63 2 0, Mode 63 2 0, Mode 63 2 0,
     Mode 63 2 0, Mode 63 2 0, Mode 63 2 0, Mode 63 2 0, Mode 63 2 0, Mode 63 2 0, Mode 63 2 0,
     Mode 63 2 0, Mode 63 2 0, Mode 63 2 0, Mode 63 2 0, Mode 63 2 0, Mode 63 2 0, Mode 63 2 0,
     Mode 63 2 0, Mode 63 2 0, Mode 63 2 0, Mode 63 2 0, Mode 63 2 0, Mode 63 2 0, Mode 63 2 0,
     Mode 63 2 0, Mode 63 2 0, Mode 63 2 0, Mode 63 2 0, Mode 63 2 0, Mode 63 2 0, Mode 63 2 0,
     Mode 63 2 0, Mode 63 2 0, Mode 63 2 0, Mode 63 2 0, Mode 63 2 0, Mode 63 2 0, Mode 63 2 0,
     Mode 63 2 0, Mode 63 2 0, Mode 63 2 0, Mode 63 2 0, Mode 63 2 0, Mode 63 2 0, Mode 63 2 0,
     Mode 63 2 0, Mode 63 2 0, Mode 63 2 0, Mode 63 2 0, Mode 63 2 0, Mode 63 2 0, Mode 63 2 0,
     Mode 63 2 0, Mode 63 2 0, Mode 63 2 0, Mode 63 2 0, Mode 63 2 0, Mode 63 2 0, Mode 63 2 0,
     Mode 63 2 0, Mode 63 2 0, Mode 63 2 0, Mode 63 2 0, Mode 63 2 0, Mode 63 2 0, Mode 63 2 0,
     Mode 63 2 0, Mode 63 2 0, Mode 63 2 0, Mode 63 2 0, Mode 63 2 0, Mode 63 2 0, Mode 63 2 0,
     Mode 63 2 0, Mode 63 2 0, Mode 63 2 0, Mode 63 2 0, Mode 63 2 0, Mode 63 2 0, Mode 63 2 0,
     Mode 63 2 0, Mode 63 2 0, Mode 63 2 0, Mode 63 2 0, Mode 63 2 0, Mode 63 2 0, Mode 63 2 0,
     Mode 63 2 0, Mode 63 2 0, Mode 63 2 0, Mode 63 2 0, Mode 63 2 0, Mode 63 2 0, Mode 63 2 0,
     Mode 63 2 0, Mode 63 2 0, Mode 63 2 0, Mode 63 2 0, Mode 63 2 0, Mode 63 2 0, Mode 63 2 0,
     Mode 63 2 0, Mode 63 2 0, Mode 63 2 0, Mode 63 2 0, Mode 63 2 0, Mode 63 2 0, Mode 63 2 0,
     Mode 63 2 0, Mode 63 2 0, Mode 63 2 0, Mode 63 2 0, Mode 63 2 0, Mode 63 2 0, Mode 63 2 0,
     Mode 63 2 0, Mode 63 2 0, Mode 63 2 0]"

text \<open>Lines 45399 to 45548.\<close>

definition ts_lex_modes_38 :: "TSLexerMode list" where
  "ts_lex_modes_38 =
    [Mode 63 2 0, Mode 63 2 0, Mode 63 2 0, Mode 63 2 0, Mode 63 2 0, Mode 63 2 0, Mode 63 2 0,
     Mode 63 2 0, Mode 63 2 0, Mode 63 2 0, Mode 63 2 0, Mode 63 2 0, Mode 63 2 0, Mode 63 2 0,
     Mode 63 2 0, Mode 63 2 0, Mode 63 2 0, Mode 63 2 0, Mode 63 2 0, Mode 63 2 0, Mode 63 2 0,
     Mode 63 2 0, Mode 63 2 0, Mode 63 2 0, Mode 63 2 0, Mode 63 2 0, Mode 63 2 0, Mode 63 2 0,
     Mode 63 2 0, Mode 63 2 0, Mode 63 2 0, Mode 63 2 0, Mode 63 2 0, Mode 63 2 0, Mode 63 2 0,
     Mode 63 2 0, Mode 63 2 0, Mode 63 2 0, Mode 63 2 0, Mode 63 2 0, Mode 63 2 0, Mode 63 2 0,
     Mode 63 2 0, Mode 63 2 0, Mode 63 2 0, Mode 63 2 0, Mode 63 2 0, Mode 63 2 0, Mode 63 2 0,
     Mode 63 2 0, Mode 63 2 0, Mode 63 2 0, Mode 63 2 0, Mode 63 2 0, Mode 63 2 0, Mode 63 2 0,
     Mode 63 2 0, Mode 63 2 0, Mode 63 2 0, Mode 63 2 0, Mode 63 2 0, Mode 63 2 0, Mode 63 2 0,
     Mode 63 2 0, Mode 63 2 0, Mode 63 2 0, Mode 63 2 0, Mode 63 2 0, Mode 63 2 0, Mode 63 2 0,
     Mode 63 2 0, Mode 63 2 0, Mode 63 2 0, Mode 63 2 0, Mode 63 2 0, Mode 63 2 0, Mode 63 2 0,
     Mode 63 2 0, Mode 63 2 0, Mode 63 2 0, Mode 63 2 0, Mode 63 2 0, Mode 63 2 0, Mode 63 2 0,
     Mode 63 2 0, Mode 63 2 0, Mode 63 2 0, Mode 63 2 0, Mode 63 2 0, Mode 63 2 0, Mode 63 2 0,
     Mode 63 2 0, Mode 63 2 0, Mode 63 2 0, Mode 63 2 0, Mode 63 2 0, Mode 63 2 0, Mode 63 2 0,
     Mode 63 2 0, Mode 63 2 0, Mode 63 2 0, Mode 63 2 0, Mode 63 2 0, Mode 63 2 0, Mode 63 2 0,
     Mode 63 2 0, Mode 63 2 0, Mode 63 2 0, Mode 63 2 0, Mode 63 2 0, Mode 63 2 0, Mode 63 2 0,
     Mode 63 2 0, Mode 63 2 0, Mode 63 2 0, Mode 63 2 0, Mode 63 2 0, Mode 63 2 0, Mode 63 2 0,
     Mode 63 2 0, Mode 63 2 0, Mode 63 2 0, Mode 63 2 0, Mode 63 2 0, Mode 63 2 0, Mode 63 2 0,
     Mode 63 2 0, Mode 63 2 0, Mode 63 2 0, Mode 63 2 0, Mode 63 2 0, Mode 63 2 0, Mode 63 2 0,
     Mode 63 2 0, Mode 63 2 0, Mode 63 2 0, Mode 63 2 0, Mode 63 2 0, Mode 63 2 0, Mode 63 2 0,
     Mode 63 2 0, Mode 63 2 0, Mode 63 2 0, Mode 63 2 0, Mode 63 2 0, Mode 63 2 0, Mode 63 2 0,
     Mode 63 2 0, Mode 63 2 0, Mode 63 2 0]"

text \<open>Lines 45549 to 45698.\<close>

definition ts_lex_modes_39 :: "TSLexerMode list" where
  "ts_lex_modes_39 =
    [Mode 63 2 0, Mode 63 2 0, Mode 63 2 0, Mode 63 2 0, Mode 63 2 0, Mode 63 2 0, Mode 63 2 0,
     Mode 63 2 0, Mode 63 2 0, Mode 63 2 0, Mode 63 2 0, Mode 63 2 0, Mode 63 2 0, Mode 63 2 0,
     Mode 63 2 0, Mode 63 2 0, Mode 63 2 0, Mode 63 2 0, Mode 63 2 0, Mode 63 2 0, Mode 63 2 0,
     Mode 63 2 0, Mode 63 2 0, Mode 63 2 0, Mode 63 2 0, Mode 63 2 0, Mode 63 2 0, Mode 63 2 0,
     Mode 63 2 0, Mode 63 2 0, Mode 63 2 0, Mode 63 2 0, Mode 63 2 0, Mode 63 2 0, Mode 63 2 0,
     Mode 63 2 0, Mode 63 2 0, Mode 63 2 0, Mode 63 2 0, Mode 63 2 0, Mode 63 2 0, Mode 63 2 0,
     Mode 63 2 0, Mode 63 2 0, Mode 63 2 0, Mode 63 2 0, Mode 63 2 0, Mode 63 2 0, Mode 63 2 0,
     Mode 63 2 0, Mode 63 2 0, Mode 63 2 0, Mode 63 2 0, Mode 63 2 0, Mode 63 2 0, Mode 63 2 0,
     Mode 63 2 0, Mode 63 2 0, Mode 63 2 0, Mode 63 2 0, Mode 63 2 0, Mode 63 2 0, Mode 63 2 0,
     Mode 63 2 0, Mode 63 2 0, Mode 63 2 0, Mode 63 2 0, Mode 63 2 0, Mode 63 2 0, Mode 63 2 0,
     Mode 63 2 0, Mode 63 2 0, Mode 63 2 0, Mode 63 2 0, Mode 63 2 0, Mode 63 2 0, Mode 63 2 0,
     Mode 63 2 0, Mode 63 2 0, Mode 63 2 0, Mode 63 2 0, Mode 63 2 0, Mode 63 2 0, Mode 63 2 0,
     Mode 63 2 0, Mode 63 2 0, Mode 63 2 0, Mode 63 2 0, Mode 63 2 0, Mode 63 2 0, Mode 63 2 0,
     Mode 63 2 0, Mode 63 2 0, Mode 63 2 0, Mode 63 2 0, Mode 63 2 0, Mode 63 2 0, Mode 63 2 0,
     Mode 63 2 0, Mode 63 2 0, Mode 63 2 0, Mode 63 2 0, Mode 63 2 0, Mode 63 2 0, Mode 63 2 0,
     Mode 63 2 0, Mode 63 2 0, Mode 63 2 0, Mode 63 2 0, Mode 63 2 0, Mode 63 2 0, Mode 63 2 0,
     Mode 63 2 0, Mode 63 2 0, Mode 63 2 0, Mode 63 2 0, Mode 63 2 0, Mode 63 2 0, Mode 63 2 0,
     Mode 63 2 0, Mode 63 2 0, Mode 63 2 0, Mode 63 2 0, Mode 63 2 0, Mode 63 2 0, Mode 63 2 0,
     Mode 63 2 0, Mode 63 2 0, Mode 63 2 0, Mode 63 2 0, Mode 63 2 0, Mode 63 2 0, Mode 63 2 0,
     Mode 63 2 0, Mode 63 2 0, Mode 63 2 0, Mode 63 2 0, Mode 63 2 0, Mode 63 2 0, Mode 63 2 0,
     Mode 63 2 0, Mode 63 2 0, Mode 63 2 0, Mode 63 2 0, Mode 63 2 0, Mode 63 2 0, Mode 63 2 0,
     Mode 63 2 0, Mode 63 2 0, Mode 63 2 0]"

text \<open>Lines 45699 to 45848.\<close>

definition ts_lex_modes_40 :: "TSLexerMode list" where
  "ts_lex_modes_40 =
    [Mode 63 2 0, Mode 63 2 0, Mode 63 2 0, Mode 63 2 0, Mode 63 2 0, Mode 63 2 0, Mode 63 2 0,
     Mode 63 2 0, Mode 63 2 0, Mode 63 2 0, Mode 63 2 0, Mode 63 2 0, Mode 63 2 0, Mode 63 2 0,
     Mode 63 2 0, Mode 63 2 0, Mode 63 2 0, Mode 63 2 0, Mode 63 2 0, Mode 63 2 0, Mode 63 2 0,
     Mode 63 2 0, Mode 63 2 0, Mode 63 2 0, Mode 63 2 0, Mode 63 2 0, Mode 63 2 0, Mode 63 2 0,
     Mode 63 2 0, Mode 63 2 0, Mode 63 2 0, Mode 63 2 0, Mode 63 2 0, Mode 63 2 0, Mode 63 2 0,
     Mode 63 2 0, Mode 63 2 0, Mode 63 2 0, Mode 63 2 0, Mode 63 2 0, Mode 63 2 0, Mode 63 2 0,
     Mode 63 2 0, Mode 63 2 0, Mode 63 2 0, Mode 63 2 0, Mode 63 2 0, Mode 63 2 0, Mode 63 2 0,
     Mode 63 2 0, Mode 63 2 0, Mode 63 2 0, Mode 63 2 0, Mode 63 2 0, Mode 63 2 0, Mode 63 2 0,
     Mode 63 2 0, Mode 63 2 0, Mode 63 2 0, Mode 63 2 0, Mode 63 2 0, Mode 63 2 0, Mode 63 2 0,
     Mode 63 2 0, Mode 63 2 0, Mode 63 2 0, Mode 63 2 0, Mode 63 2 0, Mode 63 2 0, Mode 63 2 0,
     Mode 63 2 0, Mode 63 2 0, Mode 63 2 0, Mode 63 2 0, Mode 63 2 0, Mode 63 2 0, Mode 63 2 0,
     Mode 63 2 0, Mode 63 2 0, Mode 63 2 0, Mode 63 2 0, Mode 63 2 0, Mode 63 2 0, Mode 63 2 0,
     Mode 63 2 0, Mode 63 2 0, Mode 63 2 0, Mode 63 2 0, Mode 63 2 0, Mode 63 2 0, Mode 63 2 0,
     Mode 63 2 0, Mode 63 2 0, Mode 63 2 0, Mode 63 2 0, Mode 63 2 0, Mode 63 2 0, Mode 63 2 0,
     Mode 63 2 0, Mode 63 2 0, Mode 63 2 0, Mode 63 2 0, Mode 63 2 0, Mode 63 2 0, Mode 63 2 0,
     Mode 63 2 0, Mode 63 2 0, Mode 63 2 0, Mode 63 2 0, Mode 63 2 0, Mode 63 2 0, Mode 63 2 0,
     Mode 63 2 0, Mode 63 2 0, Mode 63 2 0, Mode 63 2 0, Mode 63 2 0, Mode 63 2 0, Mode 63 2 0,
     Mode 63 2 0, Mode 63 2 0, Mode 63 2 0, Mode 63 2 0, Mode 63 2 0, Mode 63 2 0, Mode 63 2 0,
     Mode 63 2 0, Mode 63 2 0, Mode 63 2 0, Mode 63 2 0, Mode 63 2 0, Mode 63 2 0, Mode 63 2 0,
     Mode 63 2 0, Mode 63 2 0, Mode 63 2 0, Mode 63 2 0, Mode 63 2 0, Mode 63 2 0, Mode 63 2 0,
     Mode 63 2 0, Mode 63 2 0, Mode 63 2 0, Mode 63 2 0, Mode 63 2 0, Mode 63 2 0, Mode 63 2 0,
     Mode 63 2 0, Mode 63 2 0, Mode 63 2 0]"

text \<open>Lines 45849 to 45998.\<close>

definition ts_lex_modes_41 :: "TSLexerMode list" where
  "ts_lex_modes_41 =
    [Mode 63 2 0, Mode 63 2 0, Mode 63 2 0, Mode 63 2 0, Mode 63 2 0, Mode 63 2 0, Mode 63 2 0,
     Mode 63 2 0, Mode 63 2 0, Mode 63 2 0, Mode 63 2 0, Mode 63 2 0, Mode 63 2 0, Mode 63 2 0,
     Mode 63 2 0, Mode 63 2 0, Mode 63 2 0, Mode 63 2 0, Mode 63 2 0, Mode 63 2 0, Mode 63 2 0,
     Mode 63 2 0, Mode 63 2 0, Mode 63 2 0, Mode 63 2 0, Mode 63 2 0, Mode 63 2 0, Mode 63 2 0,
     Mode 63 2 0, Mode 63 2 0, Mode 63 2 0, Mode 63 2 0, Mode 63 2 0, Mode 63 2 0, Mode 63 2 0,
     Mode 63 2 0, Mode 63 2 0, Mode 63 2 0, Mode 63 2 0, Mode 63 2 0, Mode 63 2 0, Mode 63 2 0,
     Mode 63 2 0, Mode 63 2 0, Mode 63 2 0, Mode 63 2 0, Mode 63 2 0, Mode 63 2 0, Mode 63 2 0,
     Mode 63 2 0, Mode 63 2 0, Mode 63 2 0, Mode 63 2 0, Mode 63 2 0, Mode 63 2 0, Mode 63 2 0,
     Mode 63 2 0, Mode 63 2 0, Mode 63 2 0, Mode 63 2 0, Mode 63 2 0, Mode 63 2 0, Mode 63 2 0,
     Mode 63 2 0, Mode 63 2 0, Mode 63 2 0, Mode 63 2 0, Mode 63 2 0, Mode 63 2 0, Mode 63 2 0,
     Mode 63 2 0, Mode 63 2 0, Mode 63 2 0, Mode 63 2 0, Mode 63 2 0, Mode 63 2 0, Mode 63 2 0,
     Mode 63 2 0, Mode 63 2 0, Mode 63 2 0, Mode 63 2 0, Mode 63 2 0, Mode 63 2 0, Mode 63 2 0,
     Mode 63 2 0, Mode 63 2 0, Mode 63 2 0, Mode 63 2 0, Mode 63 2 0, Mode 63 2 0, Mode 63 2 0,
     Mode 63 2 0, Mode 63 2 0, Mode 63 2 0, Mode 63 2 0, Mode 63 2 0, Mode 63 2 0, Mode 63 2 0,
     Mode 63 2 0, Mode 63 2 0, Mode 63 2 0, Mode 63 2 0, Mode 63 2 0, Mode 63 2 0, Mode 63 2 0,
     Mode 63 2 0, Mode 63 2 0, Mode 63 2 0, Mode 63 2 0, Mode 63 2 0, Mode 63 2 0, Mode 63 2 0,
     Mode 63 2 0, Mode 63 2 0, Mode 63 2 0, Mode 63 2 0, Mode 63 2 0, Mode 63 2 0, Mode 63 2 0,
     Mode 63 2 0, Mode 63 2 0, Mode 63 2 0, Mode 63 2 0, Mode 63 2 0, Mode 63 2 0, Mode 63 2 0,
     Mode 63 2 0, Mode 63 2 0, Mode 63 2 0, Mode 63 2 0, Mode 63 2 0, Mode 63 2 0, Mode 63 2 0,
     Mode 63 2 0, Mode 63 2 0, Mode 63 2 0, Mode 63 2 0, Mode 63 2 0, Mode 63 2 0, Mode 63 2 0,
     Mode 63 2 0, Mode 63 2 0, Mode 63 2 0, Mode 63 2 0, Mode 63 2 0, Mode 63 2 0, Mode 63 2 0,
     Mode 63 2 0, Mode 63 2 0, Mode 63 2 0]"

text \<open>Lines 45999 to 46148.\<close>

definition ts_lex_modes_42 :: "TSLexerMode list" where
  "ts_lex_modes_42 =
    [Mode 63 2 0, Mode 63 2 0, Mode 63 2 0, Mode 63 2 0, Mode 63 2 0, Mode 63 2 0, Mode 63 2 0,
     Mode 63 2 0, Mode 63 2 0, Mode 63 2 0, Mode 63 2 0, Mode 63 2 0, Mode 63 2 0, Mode 63 2 0,
     Mode 63 2 0, Mode 63 2 0, Mode 63 2 0, Mode 63 2 0, Mode 63 2 0, Mode 63 2 0, Mode 63 2 0,
     Mode 63 2 0, Mode 63 2 0, Mode 63 2 0, Mode 63 2 0, Mode 63 2 0, Mode 63 2 0, Mode 63 2 0,
     Mode 63 2 0, Mode 63 2 0, Mode 63 2 0, Mode 63 2 0, Mode 63 2 0, Mode 63 2 0, Mode 63 2 0,
     Mode 63 2 0, Mode 63 2 0, Mode 63 2 0, Mode 63 2 0, Mode 63 2 0, Mode 63 2 0, Mode 63 2 0,
     Mode 63 2 0, Mode 63 2 0, Mode 63 2 0, Mode 63 2 0, Mode 63 2 0, Mode 63 2 0, Mode 63 2 0,
     Mode 63 2 0, Mode 63 2 0, Mode 63 2 0, Mode 63 2 0, Mode 63 2 0, Mode 63 2 0, Mode 63 2 0,
     Mode 63 2 0, Mode 63 2 0, Mode 63 2 0, Mode 63 2 0, Mode 63 2 0, Mode 63 2 0, Mode 63 2 0,
     Mode 63 2 0, Mode 63 2 0, Mode 63 2 0, Mode 63 2 0, Mode 63 2 0, Mode 63 2 0, Mode 63 2 0,
     Mode 63 2 0, Mode 63 2 0, Mode 63 2 0, Mode 63 2 0, Mode 63 2 0, Mode 63 2 0, Mode 63 2 0,
     Mode 63 2 0, Mode 63 2 0, Mode 63 2 0, Mode 63 2 0, Mode 63 2 0, Mode 63 2 0, Mode 63 2 0,
     Mode 63 2 0, Mode 63 2 0, Mode 63 2 0, Mode 63 2 0, Mode 63 2 0, Mode 63 2 0, Mode 63 2 0,
     Mode 63 2 0, Mode 63 2 0, Mode 63 2 0, Mode 63 2 0, Mode 63 2 0, Mode 63 2 0, Mode 63 2 0,
     Mode 63 2 0, Mode 63 2 0, Mode 63 2 0, Mode 63 2 0, Mode 63 2 0, Mode 63 2 0, Mode 63 2 0,
     Mode 63 2 0, Mode 63 2 0, Mode 63 2 0, Mode 63 2 0, Mode 63 2 0, Mode 63 2 0, Mode 63 2 0,
     Mode 63 2 0, Mode 63 2 0, Mode 63 2 0, Mode 63 2 0, Mode 63 2 0, Mode 63 2 0, Mode 63 2 0,
     Mode 63 2 0, Mode 63 2 0, Mode 63 2 0, Mode 63 2 0, Mode 63 2 0, Mode 63 2 0, Mode 63 2 0,
     Mode 63 2 0, Mode 63 2 0, Mode 63 2 0, Mode 63 2 0, Mode 63 2 0, Mode 63 2 0, Mode 63 2 0,
     Mode 63 2 0, Mode 63 2 0, Mode 63 2 0, Mode 63 2 0, Mode 63 2 0, Mode 63 2 0, Mode 63 2 0,
     Mode 63 2 0, Mode 63 2 0, Mode 63 2 0, Mode 63 2 0, Mode 63 2 0, Mode 63 2 0, Mode 63 2 0,
     Mode 63 2 0, Mode 63 2 0, Mode 63 2 0]"

text \<open>Lines 46149 to 46298.\<close>

definition ts_lex_modes_43 :: "TSLexerMode list" where
  "ts_lex_modes_43 =
    [Mode 63 2 0, Mode 63 2 0, Mode 63 2 0, Mode 63 2 0, Mode 63 2 0, Mode 63 2 0, Mode 63 2 0,
     Mode 63 2 0, Mode 63 2 0, Mode 63 2 0, Mode 63 2 0, Mode 63 2 0, Mode 63 2 0, Mode 63 2 0,
     Mode 63 2 0, Mode 63 2 0, Mode 63 2 0, Mode 63 2 0, Mode 63 2 0, Mode 63 2 0, Mode 63 2 0,
     Mode 63 2 0, Mode 63 2 0, Mode 63 2 0, Mode 63 2 0, Mode 63 2 0, Mode 63 2 0, Mode 63 2 0,
     Mode 63 2 0, Mode 63 2 0, Mode 63 2 0, Mode 63 2 0, Mode 63 2 0, Mode 63 2 0, Mode 63 2 0,
     Mode 63 2 0, Mode 63 2 0, Mode 63 2 0, Mode 63 2 0, Mode 63 2 0, Mode 63 2 0, Mode 63 2 0,
     Mode 63 2 0, Mode 63 2 0, Mode 63 2 0, Mode 63 2 0, Mode 63 2 0, Mode 63 2 0, Mode 63 2 0,
     Mode 63 2 0, Mode 63 2 0, Mode 63 2 0, Mode 63 2 0, Mode 63 2 0, Mode 63 2 0, Mode 63 2 0,
     Mode 63 2 0, Mode 63 2 0, Mode 63 2 0, Mode 63 2 0, Mode 63 2 0, Mode 63 2 0, Mode 63 2 0,
     Mode 63 2 0, Mode 63 2 0, Mode 63 2 0, Mode 63 2 0, Mode 63 2 0, Mode 63 2 0, Mode 63 2 0,
     Mode 63 2 0, Mode 63 2 0, Mode 63 2 0, Mode 63 2 0, Mode 63 2 0, Mode 63 2 0, Mode 63 2 0,
     Mode 63 2 0, Mode 63 2 0, Mode 63 2 0, Mode 63 2 0, Mode 63 2 0, Mode 63 2 0, Mode 63 2 0,
     Mode 63 2 0, Mode 63 2 0, Mode 63 2 0, Mode 63 2 0, Mode 63 2 0, Mode 63 2 0, Mode 63 2 0,
     Mode 63 2 0, Mode 63 2 0, Mode 63 2 0, Mode 63 2 0, Mode 63 2 0, Mode 63 2 0, Mode 63 2 0,
     Mode 63 2 0, Mode 63 2 0, Mode 63 2 0, Mode 63 2 0, Mode 63 2 0, Mode 63 2 0, Mode 63 2 0,
     Mode 63 2 0, Mode 63 2 0, Mode 63 2 0, Mode 63 2 0, Mode 63 2 0, Mode 63 2 0, Mode 63 2 0,
     Mode 63 2 0, Mode 63 2 0, Mode 63 2 0, Mode 63 2 0, Mode 63 2 0, Mode 63 2 0, Mode 63 2 0,
     Mode 63 2 0, Mode 63 2 0, Mode 63 2 0, Mode 63 2 0, Mode 63 2 0, Mode 63 2 0, Mode 63 2 0,
     Mode 63 2 0, Mode 63 2 0, Mode 63 2 0, Mode 63 2 0, Mode 63 2 0, Mode 63 2 0, Mode 63 2 0,
     Mode 63 2 0, Mode 63 2 0, Mode 63 2 0, Mode 63 2 0, Mode 63 2 0, Mode 63 2 0, Mode 63 2 0,
     Mode 63 2 0, Mode 63 2 0, Mode 63 2 0, Mode 63 2 0, Mode 63 2 0, Mode 63 2 0, Mode 63 2 0,
     Mode 63 2 0, Mode 63 2 0, Mode 63 2 0]"

text \<open>Lines 46299 to 46448.\<close>

definition ts_lex_modes_44 :: "TSLexerMode list" where
  "ts_lex_modes_44 =
    [Mode 63 2 0, Mode 63 2 0, Mode 63 2 0, Mode 63 2 0, Mode 63 2 0, Mode 63 2 0, Mode 63 2 0,
     Mode 63 2 0, Mode 63 2 0, Mode 63 2 0, Mode 63 2 0, Mode 63 2 0, Mode 63 2 0, Mode 63 2 0,
     Mode 63 2 0, Mode 63 2 0, Mode 63 2 0, Mode 63 2 0, Mode 63 2 0, Mode 63 2 0, Mode 63 2 0,
     Mode 63 2 0, Mode 63 2 0, Mode 63 2 0, Mode 63 2 0, Mode 63 2 0, Mode 63 2 0, Mode 63 2 0,
     Mode 63 2 0, Mode 63 2 0, Mode 63 2 0, Mode 63 2 0, Mode 63 2 0, Mode 63 2 0, Mode 63 2 0,
     Mode 63 2 0, Mode 63 2 0, Mode 63 2 0, Mode 63 2 0, Mode 63 2 0, Mode 63 2 0, Mode 63 2 0,
     Mode 63 2 0, Mode 63 2 0, Mode 63 2 0, Mode 63 2 0, Mode 63 2 0, Mode 63 2 0, Mode 63 2 0,
     Mode 63 2 0, Mode 63 2 0, Mode 63 2 0, Mode 63 2 0, Mode 63 2 0, Mode 63 2 0, Mode 63 2 0,
     Mode 63 2 0, Mode 63 2 0, Mode 63 2 0, Mode 63 2 0, Mode 63 2 0, Mode 63 2 0, Mode 63 2 0,
     Mode 63 2 0, Mode 63 2 0, Mode 63 2 0, Mode 63 2 0, Mode 63 2 0, Mode 63 2 0, Mode 63 2 0,
     Mode 63 2 0, Mode 63 2 0, Mode 63 2 0, Mode 63 2 0, Mode 63 2 0, Mode 63 2 0, Mode 63 2 0,
     Mode 63 2 0, Mode 63 2 0, Mode 63 2 0, Mode 63 2 0, Mode 63 2 0, Mode 63 2 0, Mode 63 2 0,
     Mode 63 2 0, Mode 63 2 0, Mode 63 2 0, Mode 63 2 0, Mode 63 2 0, Mode 63 2 0, Mode 63 2 0,
     Mode 63 2 0, Mode 63 2 0, Mode 63 2 0, Mode 63 2 0, Mode 63 2 0, Mode 63 2 0, Mode 63 2 0,
     Mode 63 2 0, Mode 63 2 0, Mode 63 2 0, Mode 63 2 0, Mode 63 2 0, Mode 63 2 0, Mode 63 2 0,
     Mode 63 2 0, Mode 63 2 0, Mode 63 2 0, Mode 63 2 0, Mode 63 2 0, Mode 63 2 0, Mode 63 2 0,
     Mode 63 2 0, Mode 63 2 0, Mode 63 2 0, Mode 63 2 0, Mode 63 2 0, Mode 63 2 0, Mode 63 2 0,
     Mode 63 2 0, Mode 63 2 0, Mode 63 2 0, Mode 63 2 0, Mode 63 2 0, Mode 63 2 0, Mode 63 2 0,
     Mode 63 2 0, Mode 63 2 0, Mode 63 2 0, Mode 63 2 0, Mode 63 2 0, Mode 63 2 0, Mode 63 2 0,
     Mode 63 2 0, Mode 63 2 0, Mode 63 2 0, Mode 63 2 0, Mode 63 2 0, Mode 63 2 0, Mode 63 2 0,
     Mode 63 2 0, Mode 63 2 0, Mode 63 2 0, Mode 63 2 0, Mode 63 2 0, Mode 63 2 0, Mode 63 2 0,
     Mode 63 2 0, Mode 63 2 0, Mode 63 2 0]"

text \<open>Lines 46449 to 46598.\<close>

definition ts_lex_modes_45 :: "TSLexerMode list" where
  "ts_lex_modes_45 =
    [Mode 63 2 0, Mode 63 2 0, Mode 63 2 0, Mode 63 2 0, Mode 63 2 0, Mode 63 2 0, Mode 63 2 0,
     Mode 63 2 0, Mode 63 2 0, Mode 63 2 0, Mode 63 2 0, Mode 63 2 0, Mode 63 2 0, Mode 63 2 0,
     Mode 63 2 0, Mode 63 2 0, Mode 63 2 0, Mode 63 2 0, Mode 63 2 0, Mode 63 2 0, Mode 63 2 0,
     Mode 63 2 0, Mode 63 2 0, Mode 63 2 0, Mode 63 2 0, Mode 63 2 0, Mode 63 2 0, Mode 63 2 0,
     Mode 63 2 0, Mode 63 2 0, Mode 63 2 0, Mode 63 2 0, Mode 63 2 0, Mode 63 2 0, Mode 63 2 0,
     Mode 63 2 0, Mode 63 2 0, Mode 63 2 0, Mode 63 2 0, Mode 63 2 0, Mode 63 2 0, Mode 63 2 0,
     Mode 63 2 0, Mode 63 2 0, Mode 63 2 0, Mode 63 2 0, Mode 63 2 0, Mode 63 2 0, Mode 63 2 0,
     Mode 63 2 0, Mode 63 2 0, Mode 63 2 0, Mode 63 2 0, Mode 63 2 0, Mode 63 2 0, Mode 63 2 0,
     Mode 63 2 0, Mode 63 2 0, Mode 63 2 0, Mode 63 2 0, Mode 63 2 0, Mode 63 2 0, Mode 63 2 0,
     Mode 63 2 0, Mode 63 2 0, Mode 63 2 0, Mode 63 2 0, Mode 63 2 0, Mode 63 2 0, Mode 63 2 0,
     Mode 63 2 0, Mode 63 2 0, Mode 63 2 0, Mode 63 2 0, Mode 63 2 0, Mode 63 2 0, Mode 63 2 0,
     Mode 63 2 0, Mode 63 2 0, Mode 63 2 0, Mode 63 2 0, Mode 63 2 0, Mode 63 2 0, Mode 63 2 0,
     Mode 63 2 0, Mode 63 2 0, Mode 63 2 0, Mode 63 2 0, Mode 63 2 0, Mode 63 2 0, Mode 63 2 0,
     Mode 63 2 0, Mode 63 2 0, Mode 63 2 0, Mode 63 2 0, Mode 63 2 0, Mode 63 2 0, Mode 63 2 0,
     Mode 63 2 0, Mode 63 2 0, Mode 63 2 0, Mode 63 2 0, Mode 63 2 0, Mode 63 2 0, Mode 63 2 0,
     Mode 63 2 0, Mode 63 2 0, Mode 63 2 0, Mode 63 2 0, Mode 63 2 0, Mode 63 2 0, Mode 63 2 0,
     Mode 63 2 0, Mode 63 2 0, Mode 63 2 0, Mode 63 2 0, Mode 63 2 0, Mode 63 2 0, Mode 63 2 0,
     Mode 63 2 0, Mode 63 2 0, Mode 63 2 0, Mode 63 2 0, Mode 63 2 0, Mode 63 2 0, Mode 63 2 0,
     Mode 63 2 0, Mode 63 2 0, Mode 63 2 0, Mode 63 2 0, Mode 63 2 0, Mode 63 2 0, Mode 63 2 0,
     Mode 63 2 0, Mode 63 2 0, Mode 63 2 0, Mode 63 2 0, Mode 63 2 0, Mode 63 2 0, Mode 63 2 0,
     Mode 63 2 0, Mode 63 2 0, Mode 63 2 0, Mode 63 2 0, Mode 63 2 0, Mode 63 2 0, Mode 63 2 0,
     Mode 63 2 0, Mode 63 2 0, Mode 63 2 0]"

text \<open>Lines 46599 to 46748.\<close>

definition ts_lex_modes_46 :: "TSLexerMode list" where
  "ts_lex_modes_46 =
    [Mode 63 2 0, Mode 63 2 0, Mode 63 2 0, Mode 63 2 0, Mode 63 2 0, Mode 63 2 0, Mode 63 2 0,
     Mode 63 2 0, Mode 63 2 0, Mode 63 2 0, Mode 63 2 0, Mode 63 2 0, Mode 63 2 0, Mode 63 2 0,
     Mode 63 2 0, Mode 63 2 0, Mode 63 2 0, Mode 63 2 0, Mode 63 2 0, Mode 63 2 0, Mode 63 2 0,
     Mode 63 2 0, Mode 63 2 0, Mode 63 2 0, Mode 63 2 0, Mode 63 2 0, Mode 63 2 0, Mode 63 2 0,
     Mode 8 2 39, Mode 63 2 0, Mode 63 2 0, Mode 63 2 0, Mode 63 2 0, Mode 63 2 0, Mode 63 2 0,
     Mode 63 2 0, Mode 63 2 0, Mode 63 2 0, Mode 63 2 0, Mode 63 2 0, Mode 63 2 0, Mode 63 2 0,
     Mode 63 2 0, Mode 63 2 0, Mode 63 2 0, Mode 63 2 0, Mode 63 2 0, Mode 63 2 0, Mode 63 2 0,
     Mode 63 2 0, Mode 63 2 0, Mode 63 2 0, Mode 63 2 0, Mode 63 2 0, Mode 63 2 0, Mode 63 2 0,
     Mode 63 2 0, Mode 63 2 0, Mode 63 2 0, Mode 63 2 0, Mode 63 2 0, Mode 63 2 0, Mode 63 2 0,
     Mode 63 2 0, Mode 63 2 0, Mode 63 2 0, Mode 63 2 0, Mode 63 2 0, Mode 63 2 0, Mode 63 2 0,
     Mode 63 2 0, Mode 63 2 0, Mode 63 2 0, Mode 63 2 0, Mode 63 2 0, Mode 63 2 0, Mode 63 2 0,
     Mode 63 2 0, Mode 63 2 0, Mode 63 2 0, Mode 63 2 0, Mode 63 2 0, Mode 63 2 0, Mode 63 2 0,
     Mode 63 2 0, Mode 63 2 0, Mode 63 2 0, Mode 63 2 0, Mode 63 2 0, Mode 63 2 0, Mode 63 2 0,
     Mode 63 2 0, Mode 63 2 0, Mode 63 2 0, Mode 63 2 0, Mode 63 2 0, Mode 63 2 0, Mode 63 2 0,
     Mode 63 2 0, Mode 63 2 0, Mode 63 2 41, Mode 63 2 0, Mode 63 2 0, Mode 63 2 0, Mode 63 2 0,
     Mode 63 2 0, Mode 63 2 0, Mode 63 2 0, Mode 63 2 0, Mode 63 2 0, Mode 63 2 0, Mode 63 2 0,
     Mode 63 2 0, Mode 63 2 0, Mode 63 2 0, Mode 63 2 0, Mode 63 2 0, Mode 63 2 0, Mode 63 2 0,
     Mode 63 2 0, Mode 63 2 0, Mode 63 2 0, Mode 63 2 0, Mode 63 2 0, Mode 63 2 0, Mode 63 2 0,
     Mode 63 2 0, Mode 63 2 0, Mode 63 2 0, Mode 63 2 0, Mode 63 2 0, Mode 63 2 0, Mode 63 2 0,
     Mode 63 2 0, Mode 63 2 0, Mode 63 2 0, Mode 63 2 0, Mode 63 2 0, Mode 63 2 0, Mode 63 2 0,
     Mode 63 2 0, Mode 63 2 0, Mode 63 2 0, Mode 63 2 0, Mode 63 2 0, Mode 63 2 0, Mode 63 2 0,
     Mode 63 2 0, Mode 63 2 0, Mode 63 2 0]"

text \<open>Lines 46749 to 46898.\<close>

definition ts_lex_modes_47 :: "TSLexerMode list" where
  "ts_lex_modes_47 =
    [Mode 63 2 0, Mode 63 2 0, Mode 63 2 0, Mode 63 2 0, Mode 63 2 0, Mode 63 2 0, Mode 63 2 0,
     Mode 63 2 0, Mode 63 2 0, Mode 63 2 0, Mode 63 2 0, Mode 63 2 0, Mode 63 2 0, Mode 63 2 0,
     Mode 63 2 0, Mode 63 2 0, Mode 63 2 0, Mode 63 2 0, Mode 63 2 0, Mode 63 2 0, Mode 63 2 0,
     Mode 63 2 0, Mode 63 2 0, Mode 63 2 0, Mode 63 2 0, Mode 63 2 0, Mode 63 2 0, Mode 63 2 0,
     Mode 63 2 0, Mode 63 2 0, Mode 63 2 0, Mode 63 2 0, Mode 63 2 0, Mode 63 2 0, Mode 63 2 0,
     Mode 63 2 0, Mode 63 2 0, Mode 63 2 0, Mode 63 2 0, Mode 63 2 0, Mode 63 2 0, Mode 63 2 0,
     Mode 63 2 0, Mode 63 2 0, Mode 63 2 0, Mode 63 2 0, Mode 63 2 0, Mode 63 2 0, Mode 63 2 0,
     Mode 63 2 0, Mode 63 2 0, Mode 63 2 0, Mode 63 2 0, Mode 63 2 0, Mode 63 2 0, Mode 63 2 0,
     Mode 63 2 0, Mode 63 2 0, Mode 63 2 0, Mode 63 2 0, Mode 63 2 0, Mode 63 2 0, Mode 63 2 0,
     Mode 63 2 0, Mode 63 2 0, Mode 63 2 0, Mode 63 2 0, Mode 63 2 0, Mode 63 2 0, Mode 63 2 0,
     Mode 63 2 0, Mode 63 2 0, Mode 63 2 0, Mode 63 2 0, Mode 63 2 0, Mode 63 2 0, Mode 63 2 0,
     Mode 63 2 0, Mode 63 2 2, Mode 63 2 0, Mode 63 2 0, Mode 63 2 0, Mode 63 2 0, Mode 63 2 0,
     Mode 63 2 0, Mode 63 2 0, Mode 63 2 0, Mode 63 2 0, Mode 63 2 0, Mode 63 2 0, Mode 63 2 0,
     Mode 63 2 0, Mode 63 2 0, Mode 63 2 0, Mode 63 2 0, Mode 63 2 0, Mode 63 2 0, Mode 63 2 0,
     Mode 63 2 0, Mode 63 2 0, Mode 63 2 0, Mode 63 2 0, Mode 63 2 0, Mode 63 2 0, Mode 63 2 0,
     Mode 63 2 0, Mode 63 2 0, Mode 63 2 0, Mode 63 2 0, Mode 63 2 0, Mode 63 2 0, Mode 63 2 0,
     Mode 63 2 0, Mode 63 2 0, Mode 63 2 0, Mode 63 2 0, Mode 63 2 0, Mode 63 2 0, Mode 63 2 0,
     Mode 63 2 0, Mode 63 2 0, Mode 63 2 0, Mode 63 2 0, Mode 63 2 0, Mode 63 2 0, Mode 63 2 0,
     Mode 63 2 0, Mode 63 2 0, Mode 63 2 0, Mode 63 2 0, Mode 63 2 0, Mode 63 2 0, Mode 63 2 0,
     Mode 63 2 0, Mode 63 2 0, Mode 63 2 0, Mode 63 2 0, Mode 63 2 0, Mode 63 2 0, Mode 63 2 0,
     Mode 63 2 0, Mode 63 2 0, Mode 63 2 0, Mode 63 2 0, Mode 63 2 0, Mode 63 2 0, Mode 63 2 0,
     Mode 63 2 0, Mode 63 2 0, Mode 63 2 0]"

text \<open>Lines 46899 to 47048.\<close>

definition ts_lex_modes_48 :: "TSLexerMode list" where
  "ts_lex_modes_48 =
    [Mode 63 2 0, Mode 63 2 0, Mode 63 2 0, Mode 63 2 0, Mode 63 2 0, Mode 63 2 0, Mode 63 2 0,
     Mode 63 2 0, Mode 63 2 0, Mode 63 2 0, Mode 63 2 0, Mode 63 2 0, Mode 63 2 0, Mode 63 2 0,
     Mode 63 2 0, Mode 63 2 0, Mode 63 2 0, Mode 63 2 0, Mode 63 2 0, Mode 63 2 0, Mode 63 2 0,
     Mode 63 2 0, Mode 63 2 0, Mode 63 2 0, Mode 63 2 0, Mode 63 2 0, Mode 63 2 0, Mode 63 2 0,
     Mode 63 2 0, Mode 63 2 0, Mode 63 2 0, Mode 63 2 0, Mode 63 2 0, Mode 63 2 0, Mode 63 2 0,
     Mode 63 2 0, Mode 63 2 0, Mode 63 2 0, Mode 63 2 0, Mode 63 2 0, Mode 63 2 0, Mode 63 2 0,
     Mode 63 2 0, Mode 63 2 0, Mode 63 2 0, Mode 63 2 0, Mode 63 2 0, Mode 63 2 0, Mode 63 2 0,
     Mode 63 2 0, Mode 63 2 0, Mode 63 2 0, Mode 63 2 0, Mode 63 2 0, Mode 63 2 0, Mode 63 2 0,
     Mode 63 2 0, Mode 63 2 0, Mode 63 2 0, Mode 63 2 0, Mode 63 2 0, Mode 63 2 0, Mode 63 2 0,
     Mode 63 2 0, Mode 63 2 0, Mode 63 2 0, Mode 63 2 0, Mode 63 2 0, Mode 63 2 0, Mode 63 2 0,
     Mode 63 2 0, Mode 63 2 0, Mode 63 2 0, Mode 63 2 0, Mode 63 2 0, Mode 63 2 0, Mode 63 2 0,
     Mode 63 2 0, Mode 63 2 0, Mode 63 2 0, Mode 63 2 0, Mode 63 2 0, Mode 63 2 0, Mode 63 2 0,
     Mode 63 2 0, Mode 63 2 0, Mode 63 2 0, Mode 63 2 0, Mode 63 2 0, Mode 63 2 0, Mode 63 2 0,
     Mode 63 2 0, Mode 63 2 0, Mode 63 2 0, Mode 63 2 0, Mode 63 2 0, Mode 63 2 0, Mode 63 2 0,
     Mode 63 2 0, Mode 63 2 0, Mode 63 2 0, Mode 63 2 0, Mode 63 2 0, Mode 63 2 0, Mode 63 2 0,
     Mode 63 2 0, Mode 63 2 0, Mode 63 2 0, Mode 63 2 0, Mode 63 2 0, Mode 63 2 0, Mode 63 2 0,
     Mode 63 2 0, Mode 63 2 0, Mode 63 2 0, Mode 63 2 0, Mode 63 2 0, Mode 63 2 0, Mode 63 2 0,
     Mode 63 2 0, Mode 63 2 0, Mode 63 2 0, Mode 63 2 0, Mode 63 2 0, Mode 63 2 0, Mode 63 2 0,
     Mode 63 2 0, Mode 63 2 0, Mode 63 2 0, Mode 63 2 0, Mode 63 2 0, Mode 63 2 0, Mode 63 2 0,
     Mode 63 2 0, Mode 63 2 0, Mode 63 2 0, Mode 63 2 0, Mode 63 2 0, Mode 63 2 0, Mode 63 2 0,
     Mode 63 2 0, Mode 63 2 0, Mode 63 2 0, Mode 63 2 0, Mode 63 2 0, Mode 63 2 0, Mode 63 2 0,
     Mode 63 2 0, Mode 63 2 0, Mode 63 2 0]"

text \<open>Lines 47049 to 47198.\<close>

definition ts_lex_modes_49 :: "TSLexerMode list" where
  "ts_lex_modes_49 =
    [Mode 63 2 0, Mode 63 2 0, Mode 63 2 0, Mode 63 2 0, Mode 63 2 0, Mode 63 2 0, Mode 63 2 0,
     Mode 63 2 0, Mode 63 2 0, Mode 63 2 2, Mode 63 2 2, Mode 63 2 41, Mode 63 2 42, Mode 63 2 0,
     Mode 63 2 0, Mode 63 2 0, Mode 63 2 0, Mode 63 2 0, Mode 63 2 0, Mode 63 2 0, Mode 63 2 42,
     Mode 63 2 2, Mode 63 2 0, Mode 63 2 0, Mode 63 2 0, Mode 63 2 0, Mode 63 2 0, Mode 63 2 0,
     Mode 63 2 0, Mode 63 2 0, Mode 63 2 0, Mode 63 2 0, Mode 63 2 0, Mode 63 2 0, Mode 63 2 0,
     Mode 63 2 0, Mode 63 2 0, Mode 63 2 0, Mode 63 2 0, Mode 63 2 0, Mode 63 2 0, Mode 63 2 0,
     Mode 63 2 0, Mode 63 2 0, Mode 63 2 0, Mode 63 2 0, Mode 63 2 0, Mode 63 2 0, Mode 63 2 0,
     Mode 63 2 0, Mode 63 2 0, Mode 63 2 0, Mode 63 2 0, Mode 63 2 0, Mode 63 2 0, Mode 63 2 0,
     Mode 63 2 2, Mode 63 2 0, Mode 63 2 0, Mode 63 2 0, Mode 63 2 0, Mode 63 2 0, Mode 63 2 0,
     Mode 63 2 0, Mode 63 2 0, Mode 63 2 0, Mode 63 2 0, Mode 63 2 0, Mode 63 2 0, Mode 63 2 0,
     Mode 63 2 0, Mode 63 2 0, Mode 63 2 0, Mode 63 2 0, Mode 63 2 0, Mode 63 2 0, Mode 63 2 0,
     Mode 63 2 0, Mode 63 2 0, Mode 63 2 0, Mode 63 2 0, Mode 63 2 0, Mode 63 2 0, Mode 63 2 0,
     Mode 63 2 0, Mode 63 2 0, Mode 63 2 0, Mode 63 2 0, Mode 63 2 0, Mode 63 2 0, Mode 63 2 0,
     Mode 63 2 0, Mode 63 2 0, Mode 63 2 0, Mode 63 2 0, Mode 63 2 0, Mode 63 2 0, Mode 63 2 0,
     Mode 63 2 0, Mode 63 2 0, Mode 63 2 0, Mode 63 2 0, Mode 63 2 0, Mode 63 2 0, Mode 63 2 0,
     Mode 63 2 0, Mode 63 2 0, Mode 63 2 0, Mode 63 2 0, Mode 63 2 0, Mode 63 2 0, Mode 63 2 0,
     Mode 63 2 0, Mode 63 2 0, Mode 63 2 0, Mode 63 2 0, Mode 63 2 0, Mode 63 2 0, Mode 63 2 0,
     Mode 63 2 0, Mode 63 2 0, Mode 63 2 0, Mode 63 2 0, Mode 63 2 0, Mode 63 2 0, Mode 63 2 0,
     Mode 63 2 0, Mode 63 2 0, Mode 63 2 0, Mode 63 2 0, Mode 63 2 0, Mode 63 2 0, Mode 63 2 0,
     Mode 63 2 0, Mode 63 2 0, Mode 63 2 0, Mode 63 2 0, Mode 63 2 0, Mode 63 2 0, Mode 63 2 0,
     Mode 63 2 0, Mode 63 2 0, Mode 63 2 0, Mode 63 2 0, Mode 63 2 0, Mode 63 2 0, Mode 63 2 0,
     Mode 63 2 0, Mode 63 2 0, Mode 63 2 0]"

text \<open>Lines 47199 to 47348.\<close>

definition ts_lex_modes_50 :: "TSLexerMode list" where
  "ts_lex_modes_50 =
    [Mode 63 2 0, Mode 63 2 0, Mode 63 2 0, Mode 63 2 0, Mode 63 2 0, Mode 63 2 0, Mode 63 2 0,
     Mode 63 2 0, Mode 63 2 0, Mode 63 2 0, Mode 63 2 0, Mode 63 2 42, Mode 63 2 41, Mode 63 2 42,
     Mode 63 2 41, Mode 63 2 41, Mode 63 2 2, Mode 63 2 2, Mode 63 2 2, Mode 63 2 0, Mode 63 2 0,
     Mode 63 2 0, Mode 63 2 0, Mode 63 2 0, Mode 63 2 0, Mode 63 2 0, Mode 63 2 0, Mode 63 2 0,
     Mode 63 2 0, Mode 63 2 0, Mode 63 2 0, Mode 63 2 2, Mode 63 2 0, Mode 63 2 2, Mode 63 2 0,
     Mode 63 2 0, Mode 63 2 0, Mode 63 2 0, Mode 63 2 0, Mode 63 2 0, Mode 63 2 2, Mode 63 2 0,
     Mode 63 2 0, Mode 63 2 0, Mode 63 2 0, Mode 63 2 0, Mode 63 2 2, Mode 63 2 0, Mode 63 2 0,
     Mode 63 2 0, Mode 63 2 0, Mode 8 2 42, Mode 8 2 42, Mode 8 2 42, Mode 63 2 0, Mode 63 2 0,
     Mode 63 2 0, Mode 63 2 0, Mode 63 2 0, Mode 63 2 0, Mode 8 2 42, Mode 63 2 0, Mode 63 2 0,
     Mode 63 2 0, Mode 8 2 42, Mode 8 2 42, Mode 63 2 39, Mode 63 2 0, Mode 63 2 0, Mode 63 2 0,
     Mode 63 2 0, Mode 63 2 39, Mode 63 2 0, Mode 63 2 2, Mode 63 2 0, Mode 63 2 0, Mode 63 2 0,
     Mode 63 2 0, Mode 63 2 39, Mode 63 2 39, Mode 63 2 39, Mode 63 2 39, Mode 63 2 39, Mode 63 2 0,
     Mode 63 2 0, Mode 63 2 0, Mode 63 2 0, Mode 63 2 39, Mode 63 2 39, Mode 63 2 0, Mode 63 2 39,
     Mode 63 2 39, Mode 63 2 0, Mode 63 2 2, Mode 63 2 0, Mode 63 2 2, Mode 63 2 0, Mode 63 2 2,
     Mode 63 2 40, Mode 63 2 39, Mode 63 2 2, Mode 63 2 0, Mode 63 2 2, Mode 63 2 39, Mode 63 2 39,
     Mode 63 2 2, Mode 63 2 39, Mode 63 2 2, Mode 63 2 39, Mode 63 2 2, Mode 63 2 2, Mode 63 2 2,
     Mode 63 2 39, Mode 63 2 2, Mode 63 2 0, Mode 63 2 0, Mode 63 2 2, Mode 63 2 2, Mode 63 2 39,
     Mode 63 2 2, Mode 63 2 41, Mode 63 2 2, Mode 63 2 2, Mode 63 2 41, Mode 63 2 43, Mode 63 2 43,
     Mode 63 2 13, Mode 63 2 0, Mode 63 2 41, Mode 63 2 0, Mode 63 2 2, Mode 63 2 2, Mode 63 2 44,
     Mode 63 2 2, Mode 63 2 43, Mode 63 2 2, Mode 63 2 43, Mode 63 2 43, Mode 63 2 2, Mode 63 2 2,
     Mode 63 2 0, Mode 63 2 0, Mode 63 2 0, Mode 63 2 2, Mode 63 2 43, Mode 63 2 2, Mode 63 2 2,
     Mode 63 2 2, Mode 63 2 0, Mode 63 2 2]"

text \<open>Lines 47349 to 47498.\<close>

definition ts_lex_modes_51 :: "TSLexerMode list" where
  "ts_lex_modes_51 =
    [Mode 63 2 0, Mode 63 2 2, Mode 63 2 0, Mode 8 2 2, Mode 63 2 2, Mode 63 2 2, Mode 63 2 43,
     Mode 63 2 41, Mode 0 2 0, Mode 63 2 2, Mode 63 2 2, Mode 63 2 43, Mode 63 2 43, Mode 63 2 41,
     Mode 63 2 41, Mode 63 2 43, Mode 63 2 2, Mode 63 2 41, Mode 63 2 2, Mode 63 2 41, Mode 63 2 41,
     Mode 63 2 41, Mode 63 2 0, Mode 63 2 41, Mode 63 2 41, Mode 63 2 41, Mode 63 2 41,
     Mode 63 2 41, Mode 63 2 41, Mode 63 2 41, Mode 0 2 0, Mode 63 2 0, Mode 63 2 2, Mode 63 2 0,
     Mode 63 2 2, Mode 63 2 2, Mode 63 2 2, Mode 63 2 2, Mode 63 2 2, Mode 63 2 41, Mode 63 2 2,
     Mode 63 2 2, Mode 63 2 2, Mode 63 2 2, Mode 63 2 2, Mode 63 2 2, Mode 63 2 2, Mode 63 2 2,
     Mode 63 2 2, Mode 63 2 2, Mode 63 2 2, Mode 63 2 2, Mode 63 2 2, Mode 63 2 2, Mode 63 2 2,
     Mode 63 2 41, Mode 63 2 0, Mode 63 2 0, Mode 63 2 44, Mode 63 2 2, Mode 0 2 0, Mode 0 2 0,
     Mode 0 2 0, Mode 0 2 0, Mode 63 2 0, Mode 63 2 45, Mode 63 2 2, Mode 63 2 41, Mode 63 2 0,
     Mode 63 2 2, Mode 63 2 2, Mode 63 2 2, Mode 63 2 0, Mode 0 2 0, Mode 63 2 0, Mode 63 2 46,
     Mode 63 2 46, Mode 63 2 0, Mode 63 2 44, Mode 63 2 0, Mode 63 2 2, Mode 63 2 0, Mode 63 2 45,
     Mode 13 2 2, Mode 63 2 44, Mode 63 2 2, Mode 63 2 44, Mode 63 2 44, Mode 63 2 2, Mode 63 2 45,
     Mode 63 2 2, Mode 63 2 0, Mode 63 2 0, Mode 63 2 0, Mode 63 2 0, Mode 63 2 0, Mode 63 2 45,
     Mode 63 2 0, Mode 63 2 2, Mode 0 2 0, Mode 63 2 2, Mode 63 2 0, Mode 63 2 0, Mode 0 2 0,
     Mode 63 2 0, Mode 63 2 0, Mode 0 2 0, Mode 63 2 0, Mode 63 2 45, Mode 63 2 0, Mode 63 2 45,
     Mode 63 2 0, Mode 63 2 0, Mode 63 2 0, Mode 63 2 0, Mode 63 2 44, Mode 8 2 0, Mode 63 2 0,
     Mode 63 2 45, Mode 0 2 0, Mode 63 2 2, Mode 63 2 0, Mode 63 2 45, Mode 63 2 44, Mode 63 2 0,
     Mode 63 2 0, Mode 63 2 42, Mode 63 2 42, Mode 63 2 0, Mode 63 2 42, Mode 63 2 42, Mode 63 2 42,
     Mode 63 2 0, Mode 63 2 0, Mode 63 2 0, Mode 63 2 2, Mode 63 2 2, Mode 63 2 2, Mode 63 2 42,
     Mode 63 2 42, Mode 63 2 2, Mode 63 2 2, Mode 63 2 41, Mode 12 2 0, Mode 63 2 42, Mode 63 2 42,
     Mode 63 2 2, Mode 63 2 42, Mode 63 2 2, Mode 63 2 2]"

text \<open>Lines 47499 to 47648.\<close>

definition ts_lex_modes_52 :: "TSLexerMode list" where
  "ts_lex_modes_52 =
    [Mode 0 2 0, Mode 0 2 0, Mode 63 2 42, Mode 12 2 0, Mode 63 2 42, Mode 63 2 2, Mode 63 2 2,
     Mode 63 2 2, Mode 63 2 2, Mode 0 2 0, Mode 0 2 0, Mode 63 2 2, Mode 63 2 2, Mode 63 2 2,
     Mode 63 2 41, Mode 63 2 2, Mode 63 2 42, Mode 63 2 2, Mode 0 2 0, Mode 63 2 2, Mode 63 2 2,
     Mode 63 2 2, Mode 63 2 42, Mode 63 2 42, Mode 63 2 42, Mode 0 2 0, Mode 63 2 2, Mode 63 2 42,
     Mode 63 2 42, Mode 63 2 2, Mode 63 2 41, Mode 63 2 2, Mode 63 2 2, Mode 63 2 0, Mode 63 2 2,
     Mode 63 2 2, Mode 63 2 2, Mode 0 2 0, Mode 63 2 2, Mode 63 2 2, Mode 63 2 2, Mode 63 2 2,
     Mode 63 2 2, Mode 63 2 42, Mode 63 2 2, Mode 63 2 2, Mode 63 2 2, Mode 63 2 2, Mode 63 2 2,
     Mode 63 2 2, Mode 63 2 2, Mode 63 2 2, Mode 63 2 0, Mode 0 2 0, Mode 63 2 2, Mode 63 2 2,
     Mode 63 2 2, Mode 63 2 42, Mode 63 2 2, Mode 63 2 42, Mode 63 2 2, Mode 63 2 2, Mode 63 2 2,
     Mode 63 2 2, Mode 63 2 0, Mode 63 2 0, Mode 63 2 2, Mode 63 2 2, Mode 63 2 2, Mode 63 2 2,
     Mode 63 2 2, Mode 63 2 2, Mode 63 2 2, Mode 0 2 0, Mode 63 2 2, Mode 63 2 2, Mode 0 2 0,
     Mode 63 2 2, Mode 63 2 2, Mode 63 2 2, Mode 63 2 2, Mode 0 2 0, Mode 63 2 42, Mode 63 2 42,
     Mode 63 2 2, Mode 63 2 2, Mode 63 2 2, Mode 63 2 2, Mode 63 2 2, Mode 63 2 42, Mode 63 2 2,
     Mode 63 2 2, Mode 63 2 2, Mode 63 2 2, Mode 63 2 2, Mode 63 2 2, Mode 63 2 2, Mode 63 2 42,
     Mode 63 2 2, Mode 63 2 2, Mode 63 2 2, Mode 63 2 2, Mode 63 2 2, Mode 218 2 0, Mode 63 2 2,
     Mode 63 2 2, Mode 63 2 2, Mode 63 2 2, Mode 63 2 2, Mode 63 2 2, Mode 63 2 2, Mode 63 2 2,
     Mode 63 2 2, Mode 63 2 2, Mode 63 2 2, Mode 63 2 2, Mode 63 2 2, Mode 63 2 2, Mode 63 2 2,
     Mode 63 2 2, Mode 63 2 2, Mode 63 2 42, Mode 63 2 42, Mode 63 2 42, Mode 63 2 42, Mode 63 2 2,
     Mode 63 2 0, Mode 63 2 0, Mode 63 2 43, Mode 63 2 2, Mode 63 2 0, Mode 63 2 42, Mode 63 2 42,
     Mode 63 2 2, Mode 63 2 2, Mode 63 2 43, Mode 63 2 2, Mode 63 2 0, Mode 63 2 0, Mode 63 2 2,
     Mode 63 2 0, Mode 63 2 2, Mode 63 2 2, Mode 63 2 2, Mode 63 2 2, Mode 63 2 2, Mode 63 2 2,
     Mode 63 2 2, Mode 63 2 2, Mode 63 2 2]"

text \<open>Lines 47649 to 47798.\<close>

definition ts_lex_modes_53 :: "TSLexerMode list" where
  "ts_lex_modes_53 =
    [Mode 63 2 2, Mode 63 2 2, Mode 63 2 2, Mode 63 2 0, Mode 63 2 2, Mode 63 2 2, Mode 63 2 2,
     Mode 63 2 2, Mode 63 2 0, Mode 63 2 0, Mode 63 2 2, Mode 63 2 2, Mode 63 2 0, Mode 63 2 0,
     Mode 63 2 2, Mode 63 2 2, Mode 63 2 2, Mode 63 2 2, Mode 63 2 2, Mode 63 2 2, Mode 63 2 0,
     Mode 63 2 2, Mode 63 2 2, Mode 63 2 2, Mode 0 2 0, Mode 63 2 2, Mode 63 2 0, Mode 63 2 47,
     Mode 18 2 0, Mode 63 2 2, Mode 63 2 2, Mode 0 2 0, Mode 63 2 2, Mode 63 2 2, Mode 63 2 0,
     Mode 63 2 2, Mode 63 2 2, Mode 63 2 2, Mode 63 2 2, Mode 63 2 2, Mode 63 2 0, Mode 63 2 2,
     Mode 63 2 2, Mode 63 2 2, Mode 63 2 2, Mode 63 2 42, Mode 63 2 2, Mode 63 2 0, Mode 63 2 0,
     Mode 63 2 2, Mode 63 2 2, Mode 63 2 2, Mode 63 2 2, Mode 0 2 0, Mode 63 2 2, Mode 63 2 2,
     Mode 63 2 2, Mode 63 2 2, Mode 63 2 2, Mode 63 2 2, Mode 0 2 0, Mode 63 2 0, Mode 63 2 0,
     Mode 63 2 2, Mode 63 2 2, Mode 63 2 2, Mode 63 2 2, Mode 0 2 0, Mode 63 2 0, Mode 63 2 2,
     Mode 63 2 0, Mode 0 2 0, Mode 63 2 42, Mode 63 2 47, Mode 63 2 2, Mode 0 2 0, Mode 63 2 2,
     Mode 63 2 42, Mode 7 2 0, Mode 63 2 2, Mode 63 2 42, Mode 63 2 0, Mode 0 2 0, Mode 7 2 0,
     Mode 63 2 0, Mode 63 2 0, Mode 63 2 0, Mode 63 2 42, Mode 63 2 2, Mode 63 2 0, Mode 63 2 0,
     Mode 63 2 2, Mode 63 2 2, Mode 63 2 2, Mode 63 2 2, Mode 63 2 2, Mode 63 2 2, Mode 0 2 0,
     Mode 63 2 42, Mode 63 2 2, Mode 63 2 2, Mode 63 2 2, Mode 63 2 2, Mode 63 2 2, Mode 63 2 2,
     Mode 63 2 2, Mode 63 2 2, Mode 63 2 2, Mode 63 2 2, Mode 63 2 2, Mode 63 2 0, Mode 63 2 2,
     Mode 63 2 2, Mode 63 2 2, Mode 63 2 2, Mode 0 2 0, Mode 63 2 2, Mode 0 2 0, Mode 63 2 2,
     Mode 63 2 41, Mode 0 2 0, Mode 0 2 0, Mode 63 2 2, Mode 0 2 0, Mode 63 2 2, Mode 63 2 2,
     Mode 63 2 2, Mode 0 2 0, Mode 0 2 0, Mode 63 2 2, Mode 0 2 0, Mode 63 2 2, Mode 4 2 0,
     Mode 0 2 0, Mode 63 2 2, Mode 0 2 0, Mode 0 2 0, Mode 0 2 0, Mode 0 2 0, Mode 63 2 0,
     Mode 0 2 0, Mode 0 2 0, Mode 63 2 2, Mode 12 2 0, Mode 63 2 2, Mode 63 2 2, Mode 63 2 0,
     Mode 0 2 0, Mode 63 2 2, Mode 63 2 2]"

text \<open>Lines 47799 to 47948.\<close>

definition ts_lex_modes_54 :: "TSLexerMode list" where
  "ts_lex_modes_54 =
    [Mode 0 2 0, Mode 0 2 0, Mode 63 2 0, Mode 0 2 0, Mode 63 2 0, Mode 0 2 0, Mode 0 2 0,
     Mode 0 2 0, Mode 0 2 0, Mode 63 2 2, Mode 63 2 0, Mode 0 2 0, Mode 0 2 0, Mode 63 2 2,
     Mode 63 2 2, Mode 63 2 2, Mode 63 2 2, Mode 63 2 2, Mode 63 2 2, Mode 63 2 2, Mode 63 2 0,
     Mode 63 2 2, Mode 0 2 0, Mode 0 2 0, Mode 0 2 0, Mode 0 2 0, Mode 63 2 2, Mode 63 2 2,
     Mode 63 2 2, Mode 63 2 2, Mode 63 2 2, Mode 63 2 2, Mode 12 2 0, Mode 0 2 0, Mode 0 2 0,
     Mode 0 2 0, Mode 63 2 2, Mode 63 2 2, Mode 0 2 0, Mode 63 2 2, Mode 0 2 0, Mode 63 2 2,
     Mode 63 2 2, Mode 63 2 2, Mode 63 2 2, Mode 63 2 2, Mode 63 2 2, Mode 63 2 2, Mode 63 2 2,
     Mode 63 2 2, Mode 15 2 0, Mode 15 2 0, Mode 63 2 0, Mode 0 2 0, Mode 0 2 0, Mode 0 2 0,
     Mode 0 2 0, Mode 63 2 0, Mode 63 2 2, Mode 63 2 0, Mode 0 2 0, Mode 63 2 2, Mode 0 2 0,
     Mode 63 2 0, Mode 63 2 2, Mode 63 2 0, Mode 0 2 0, Mode 63 2 2, Mode 0 2 0, Mode 0 2 0,
     Mode 0 2 0, Mode 0 2 0, Mode 0 2 0, Mode 63 2 0, Mode 0 2 0, Mode 63 2 2, Mode 0 2 0,
     Mode 0 2 0, Mode 0 2 0, Mode 63 2 2, Mode 63 2 2, Mode 0 2 0, Mode 0 2 0, Mode 12 2 0,
     Mode 0 2 0, Mode 63 2 2, Mode 0 2 0, Mode 63 2 2, Mode 0 2 0, Mode 15 2 0, Mode 0 2 0,
     Mode 0 2 0, Mode 63 2 2, Mode 63 2 2, Mode 63 2 0, Mode 15 2 0, Mode 0 2 0, Mode 63 2 2,
     Mode 63 2 2, Mode 12 2 0, Mode 63 2 2, Mode 63 2 0, Mode 63 2 2, Mode 63 2 2, Mode 0 2 0,
     Mode 0 2 0, Mode 0 2 0, Mode 63 2 2, Mode 0 2 0, Mode 0 2 0, Mode 63 2 2, Mode 63 2 2,
     Mode 0 2 0, Mode 0 2 0, Mode 0 2 0, Mode 0 2 0, Mode 0 2 0, Mode 0 2 0, Mode 63 2 2,
     Mode 0 2 0, Mode 0 2 0, Mode 63 2 2, Mode 63 2 2, Mode 0 2 0, Mode 63 2 2, Mode 63 2 2,
     Mode 0 2 0, Mode 0 2 0, Mode 63 2 2, Mode 0 2 0, Mode 0 2 0, Mode 63 2 2, Mode 63 2 2,
     Mode 0 2 0, Mode 63 2 0, Mode 4 2 0, Mode 63 2 0, Mode 63 2 0, Mode 0 2 0, Mode 0 2 0,
     Mode 63 2 2, Mode 63 2 0, Mode 0 2 0, Mode 4 2 0, Mode 63 2 2, Mode 0 2 0, Mode 63 2 0,
     Mode 0 2 0, Mode 0 2 0, Mode 0 2 0]"

text \<open>Lines 47949 to 48098.\<close>

definition ts_lex_modes_55 :: "TSLexerMode list" where
  "ts_lex_modes_55 =
    [Mode 63 2 2, Mode 0 2 0, Mode 0 2 0, Mode 0 2 0, Mode 63 2 2, Mode 63 2 2, Mode 63 2 2,
     Mode 63 2 2, Mode 0 2 0, Mode 63 2 2, Mode 63 2 0, Mode 63 2 2, Mode 63 2 2, Mode 0 2 0,
     Mode 63 2 2, Mode 0 2 0, Mode 7 2 2, Mode 63 2 0, Mode 63 2 2, Mode 63 2 2, Mode 0 2 0,
     Mode 63 2 2, Mode 0 2 0, Mode 0 2 0, Mode 0 2 0, Mode 0 2 0, Mode 63 2 2, Mode 63 2 2,
     Mode 63 2 2, Mode 63 2 0, Mode 0 2 0, Mode 63 2 2, Mode 63 2 2, Mode 0 2 0, Mode 63 2 2,
     Mode 63 2 0, Mode 0 2 0, Mode 63 2 2, Mode 0 2 0, Mode 63 2 2, Mode 63 2 2, Mode 63 2 0,
     Mode 63 2 2, Mode 63 2 2, Mode 63 2 2, Mode 0 2 0, Mode 0 2 0, Mode 63 2 0, Mode 63 2 0,
     Mode 0 2 0, Mode 63 2 0, Mode 63 2 2, Mode 0 2 0, Mode 0 2 0, Mode 0 2 0, Mode 0 2 0,
     Mode 19 2 0, Mode 0 2 0, Mode 0 2 0, Mode 19 2 0, Mode 63 2 2, Mode 19 2 0, Mode 0 2 0,
     Mode 63 2 0, Mode 63 2 2, Mode 63 2 0, Mode 63 2 2, Mode 63 2 0, Mode 0 2 0, Mode 19 2 0,
     Mode 19 2 0, Mode 0 2 0, Mode 19 2 0, Mode 19 2 0, Mode 63 2 2, Mode 7 2 2, Mode 63 2 2,
     Mode 19 2 0, Mode 0 2 0, Mode 63 2 2, Mode 0 2 0, Mode 63 2 2, Mode 63 2 0, Mode 63 2 0,
     Mode 63 2 2, Mode 63 2 0, Mode 63 2 2, Mode 63 2 0, Mode 0 2 0, Mode 63 2 2, Mode 63 2 2,
     Mode 0 2 0, Mode 63 2 0, Mode 63 2 2, Mode 63 2 0, Mode 63 2 2, Mode 0 2 0, Mode 63 2 2,
     Mode 63 2 2, Mode 63 2 0, Mode 63 2 2, Mode 63 2 2, Mode 0 2 0, Mode 63 2 0, Mode 63 2 2,
     Mode 0 2 0, Mode 63 2 0, Mode 63 2 0, Mode 63 2 0, Mode 63 2 0, Mode 63 2 0, Mode 63 2 0,
     Mode 63 2 0, Mode 63 2 0, Mode 63 2 0, Mode 63 2 0, Mode 63 2 0, Mode 63 2 0, Mode 63 2 0,
     Mode 63 2 0, Mode 63 2 0, Mode 63 2 0, Mode 63 2 0, Mode 63 2 0, Mode 63 2 0, Mode 0 2 0,
     Mode 63 2 0, Mode 63 2 0, Mode 63 2 0, Mode 63 2 0, Mode 63 2 0, Mode 63 2 0, Mode 63 2 0,
     Mode 63 2 0, Mode 63 2 0, Mode 63 2 0, Mode 63 2 0, Mode 63 2 0, Mode 63 2 0, Mode 63 2 0,
     Mode 63 2 0, Mode 63 2 0, Mode 63 2 0, Mode 63 2 0, Mode 63 2 0, Mode 63 2 0, Mode 63 2 0,
     Mode 63 2 0, Mode 63 2 0, Mode 63 2 0]"

text \<open>Lines 48099 to 48248.\<close>

definition ts_lex_modes_56 :: "TSLexerMode list" where
  "ts_lex_modes_56 =
    [Mode 63 2 0, Mode 63 2 0, Mode 63 2 0, Mode 63 2 0, Mode 63 2 0, Mode 63 2 0, Mode 63 2 0,
     Mode 63 2 0, Mode 63 2 0, Mode 63 2 0, Mode 63 2 0, Mode 63 2 0, Mode 63 2 0, Mode 63 2 0,
     Mode 63 2 0, Mode 63 2 0, Mode 63 2 0, Mode 63 2 0, Mode 63 2 0, Mode 63 2 0, Mode 63 2 0,
     Mode 63 2 0, Mode 63 2 0, Mode 63 2 0, Mode 63 2 0, Mode 63 2 0, Mode 63 2 0, Mode 63 2 0,
     Mode 63 2 0, Mode 63 2 0, Mode 63 2 0, Mode 63 2 0, Mode 63 2 0, Mode 63 2 0, Mode 63 2 0,
     Mode 63 2 0, Mode 63 2 0, Mode 63 2 0, Mode 63 2 0, Mode 63 2 0, Mode 63 2 0, Mode 63 2 0,
     Mode 63 2 0, Mode 63 2 0, Mode 63 2 0, Mode 63 2 0, Mode 63 2 0, Mode 63 2 0, Mode 63 2 0,
     Mode 63 2 0, Mode 63 2 0, Mode 63 2 0, Mode 63 2 0, Mode 63 2 0, Mode 63 2 0, Mode 63 2 0,
     Mode 63 2 0, Mode 63 2 0, Mode 63 2 0, Mode 63 2 0, Mode 63 2 0, Mode 63 2 0, Mode 63 2 0,
     Mode 63 2 0, Mode 63 2 0, Mode 63 2 0, Mode 63 2 0, Mode 63 2 0, Mode 63 2 0, Mode 63 2 0,
     Mode 63 2 0, Mode 63 2 0, Mode 63 2 0, Mode 63 2 0, Mode 63 2 0, Mode 63 2 0, Mode 63 2 0,
     Mode 63 2 0, Mode 63 2 0, Mode 63 2 0, Mode 63 2 0, Mode 63 2 0, Mode 63 2 0, Mode 63 2 0,
     Mode 63 2 0, Mode 63 2 0, Mode 63 2 0, Mode 63 2 0, Mode 63 2 0, Mode 63 2 0, Mode 63 2 0,
     Mode 63 2 0, Mode 63 2 0, Mode 63 2 0, Mode 63 2 0, Mode 63 2 0, Mode 63 2 0, Mode 63 2 0,
     Mode 63 2 0, Mode 63 2 0, Mode 63 2 0, Mode 63 2 0, Mode 63 2 0, Mode 63 2 0, Mode 63 2 0,
     Mode 63 2 0, Mode 63 2 0, Mode 63 2 0, Mode 63 2 0, Mode 63 2 0, Mode 63 2 0, Mode 63 2 0,
     Mode 63 2 0, Mode 63 2 0, Mode 63 2 0, Mode 63 2 0, Mode 63 2 0, Mode 63 2 0, Mode 0 2 0,
     Mode 63 2 0, Mode 63 2 0, Mode 63 2 0, Mode 63 2 0, Mode 63 2 0, Mode 63 2 0, Mode 63 2 0,
     Mode 63 2 0, Mode 63 2 0, Mode 63 2 0, Mode 63 2 0, Mode 63 2 0, Mode 63 2 0, Mode 63 2 0,
     Mode 0 2 0, Mode 63 2 0, Mode 63 2 0, Mode 63 2 0, Mode 63 2 0, Mode 63 2 0, Mode 63 2 2,
     Mode 63 2 0, Mode 63 2 0, Mode 63 2 0, Mode 63 2 0, Mode 63 2 0, Mode 63 2 0, Mode 63 2 0,
     Mode 63 2 0, Mode 63 2 0, Mode 63 2 0]"

text \<open>Lines 48249 to 48398.\<close>

definition ts_lex_modes_57 :: "TSLexerMode list" where
  "ts_lex_modes_57 =
    [Mode 63 2 0, Mode 63 2 0, Mode 63 2 0, Mode 0 2 0, Mode 63 2 0, Mode 63 2 0, Mode 63 2 0,
     Mode 63 2 0, Mode 63 2 0, Mode 0 2 0, Mode 63 2 0, Mode 63 2 0, Mode 63 2 2, Mode 63 2 2,
     Mode 63 2 0, Mode 63 2 0, Mode 63 2 0, Mode 63 2 0, Mode 63 2 0, Mode 63 2 0, Mode 63 2 0,
     Mode 63 2 0, Mode 63 2 0, Mode 63 2 0, Mode 63 2 0, Mode 63 2 0, Mode 63 2 0, Mode 63 2 0,
     Mode 63 2 0, Mode 63 2 0, Mode 63 2 0, Mode 63 2 0, Mode 63 2 0, Mode 63 2 0, Mode 63 2 0,
     Mode 63 2 0, Mode 63 2 0, Mode 63 2 2, Mode 63 2 0, Mode 63 2 0, Mode 63 2 0, Mode 63 2 0,
     Mode 63 2 0, Mode 63 2 0, Mode 63 2 0, Mode 63 2 0, Mode 63 2 0, Mode 63 2 0, Mode 63 2 0,
     Mode 63 2 0, Mode 63 2 0, Mode 63 2 0, Mode 63 2 0, Mode 63 2 0, Mode 63 2 0, Mode 63 2 0,
     Mode 63 2 0, Mode 63 2 0, Mode 63 2 0, Mode 63 2 0, Mode 63 2 0, Mode 63 2 0, Mode 63 2 0,
     Mode 63 2 0, Mode 63 2 0, Mode 63 2 0, Mode 63 2 0, Mode 63 2 0, Mode 63 2 0, Mode 63 2 0,
     Mode 63 2 0, Mode 63 2 0, Mode 63 2 0, Mode 63 2 0, Mode 63 2 0, Mode 63 2 0, Mode 63 2 2,
     Mode 63 2 0, Mode 63 2 0, Mode 63 2 0, Mode 63 2 0, Mode 63 2 0, Mode 63 2 0, Mode 63 2 0,
     Mode 63 2 0, Mode 63 2 0, Mode 63 2 0, Mode 63 2 0, Mode 63 2 0, Mode 63 2 0, Mode 63 2 0,
     Mode 63 2 0, Mode 63 2 0, Mode 63 2 0, Mode 63 2 0, Mode 63 2 0, Mode 63 2 0, Mode 63 2 0,
     Mode 63 2 0, Mode 63 2 0, Mode 0 2 0, Mode 63 2 0, Mode 63 2 0, Mode 63 2 0, Mode 63 2 0,
     Mode 63 2 0, Mode 63 2 0, Mode 63 2 0, Mode 63 2 0, Mode 0 2 0, Mode 63 2 0, Mode 63 2 0,
     Mode 63 2 0, Mode 63 2 0, Mode 63 2 0, Mode 63 2 0, Mode 63 2 0, Mode 63 2 0, Mode 63 2 0,
     Mode 63 2 0, Mode 63 2 0, Mode 63 2 0, Mode 63 2 0, Mode 63 2 0, Mode 63 2 0, Mode 63 2 0,
     Mode 63 2 0, Mode 63 2 0, Mode 63 2 0, Mode 63 2 0, Mode 63 2 0, Mode 63 2 0, Mode 63 2 0,
     Mode 63 2 0, Mode 63 2 0, Mode 63 2 0, Mode 63 2 0, Mode 63 2 0, Mode 63 2 0, Mode 63 2 0,
     Mode 63 2 0, Mode 63 2 0, Mode 63 2 0, Mode 63 2 0, Mode 63 2 0, Mode 63 2 0, Mode 63 2 0,
     Mode 63 2 0, Mode 63 2 0, Mode 63 2 0]"

text \<open>Lines 48399 to 48548.\<close>

definition ts_lex_modes_58 :: "TSLexerMode list" where
  "ts_lex_modes_58 =
    [Mode 63 2 0, Mode 63 2 0, Mode 63 2 0, Mode 63 2 0, Mode 63 2 0, Mode 0 2 0, Mode 63 2 0,
     Mode 63 2 0, Mode 63 2 0, Mode 63 2 0, Mode 63 2 0, Mode 63 2 0, Mode 63 2 0, Mode 63 2 0,
     Mode 63 2 0, Mode 63 2 0, Mode 63 2 0, Mode 63 2 0, Mode 63 2 0, Mode 63 2 0, Mode 63 2 0,
     Mode 63 2 0, Mode 63 2 0, Mode 63 2 0, Mode 63 2 0, Mode 0 2 0, Mode 63 2 0, Mode 0 2 0,
     Mode 0 2 0, Mode 0 2 0, Mode 63 2 0, Mode 63 2 0, Mode 0 2 0, Mode 0 2 0, Mode 63 2 0,
     Mode 0 2 0, Mode 63 2 0, Mode 63 2 0, Mode 63 2 0, Mode 0 2 0, Mode 63 2 0, Mode 63 2 0,
     Mode 63 2 0, Mode 63 2 0, Mode 63 2 0, Mode 63 2 0, Mode 63 2 0, Mode 63 2 0, Mode 63 2 0,
     Mode 63 2 0, Mode 63 2 0, Mode 63 2 0, Mode 63 2 0, Mode 63 2 0, Mode 63 2 0, Mode 63 2 0,
     Mode 63 2 0, Mode 63 2 0, Mode 63 2 0, Mode 63 2 0, Mode 63 2 0, Mode 63 2 0, Mode 63 2 0,
     Mode 63 2 0, Mode 63 2 0, Mode 63 2 0, Mode 63 2 0, Mode 63 2 0, Mode 63 2 0, Mode 63 2 0,
     Mode 63 2 0, Mode 63 2 0, Mode 63 2 0, Mode 63 2 0, Mode 0 2 0, Mode 63 2 0, Mode 63 2 0,
     Mode 63 2 0, Mode 63 2 0, Mode 63 2 0, Mode 63 2 0, Mode 63 2 0, Mode 63 2 0, Mode 63 2 0,
     Mode 63 2 0, Mode 63 2 0, Mode 63 2 0, Mode 63 2 0, Mode 63 2 0, Mode 63 2 0, Mode 219 2 0,
     Mode 63 2 0, Mode 63 2 0, Mode 63 2 0, Mode 63 2 0, Mode 63 2 0, Mode 63 2 0, Mode 63 2 0,
     Mode 63 2 0, Mode 63 2 0, Mode 63 2 0, Mode 0 2 0, Mode 63 2 0, Mode 63 2 0, Mode 63 2 0,
     Mode 63 2 0, Mode 63 2 0, Mode 63 2 0, Mode 63 2 0, Mode 63 2 0, Mode 63 2 0, Mode 63 2 0,
     Mode 63 2 0, Mode 63 2 0, Mode 63 2 0, Mode 63 2 0, Mode 63 2 0, Mode 63 2 0, Mode 63 2 0,
     Mode 63 2 0, Mode 63 2 0, Mode 63 2 0, Mode 63 2 0, Mode 63 2 0, Mode 63 2 0, Mode 63 2 0,
     Mode 63 2 0, Mode 63 2 0, Mode 63 2 0, Mode 63 2 0, Mode 63 2 0, Mode 63 2 0, Mode 63 2 0,
     Mode 63 2 0, Mode 63 2 0, Mode 63 2 0, Mode 63 2 0, Mode 63 2 0, Mode 63 2 0, Mode 63 2 0,
     Mode 63 2 0, Mode 63 2 0, Mode 63 2 0, Mode 63 2 0, Mode 63 2 0, Mode 63 2 0, Mode 63 2 0,
     Mode 63 2 0, Mode 63 2 0, Mode 63 2 0]"

text \<open>Lines 48549 to 48698.\<close>

definition ts_lex_modes_59 :: "TSLexerMode list" where
  "ts_lex_modes_59 =
    [Mode 63 2 0, Mode 63 2 0, Mode 63 2 0, Mode 63 2 0, Mode 63 2 0, Mode 63 2 0, Mode 0 2 0,
     Mode 63 2 0, Mode 63 2 0, Mode 0 2 0, Mode 63 2 0, Mode 63 2 0, Mode 63 2 0, Mode 63 2 0,
     Mode 63 2 2, Mode 63 2 0, Mode 63 2 0, Mode 63 2 0, Mode 63 2 0, Mode 63 2 0, Mode 63 2 0,
     Mode 63 2 0, Mode 63 2 0, Mode 63 2 0, Mode 63 2 0, Mode 63 2 0, Mode 63 2 0, Mode 63 2 0,
     Mode 63 2 0, Mode 63 2 0, Mode 63 2 0, Mode 63 2 2, Mode 63 2 0, Mode 63 2 0, Mode 63 2 0,
     Mode 63 2 0, Mode 63 2 0, Mode 63 2 0, Mode 63 2 0, Mode 63 2 0, Mode 63 2 0, Mode 0 2 0,
     Mode 63 2 0, Mode 63 2 0, Mode 63 2 0, Mode 63 2 0, Mode 63 2 0, Mode 63 2 0, Mode 63 2 0,
     Mode 63 2 0, Mode 63 2 0, Mode 63 2 0, Mode 63 2 0, Mode 63 2 0, Mode 63 2 0, Mode 63 2 0,
     Mode 0 2 0, Mode 63 2 0, Mode 63 2 0, Mode 63 2 0, Mode 63 2 0, Mode 63 2 0, Mode 63 2 0,
     Mode 63 2 0, Mode 63 2 0, Mode 63 2 0, Mode 63 2 0, Mode 63 2 0, Mode 63 2 0, Mode 63 2 0,
     Mode 63 2 0, Mode 63 2 0, Mode 63 2 0, Mode 63 2 0, Mode 63 2 0, Mode 63 2 0, Mode 63 2 0,
     Mode 63 2 0, Mode 63 2 0, Mode 63 2 0, Mode 63 2 2, Mode 63 2 0, Mode 63 2 0, Mode 63 2 0,
     Mode 63 2 0, Mode 63 2 0, Mode 63 2 0, Mode 63 2 0, Mode 63 2 0, Mode 63 2 0, Mode 63 2 0,
     Mode 63 2 0, Mode 63 2 0, Mode 63 2 0, Mode 63 2 0, Mode 63 2 0, Mode 63 2 0, Mode 63 2 0,
     Mode 63 2 0, Mode 63 2 0, Mode 63 2 0, Mode 63 2 0, Mode 63 2 0, Mode 63 2 0, Mode 63 2 0,
     Mode 63 2 0, Mode 63 2 0, Mode 63 2 0, Mode 63 2 0, Mode 63 2 0, Mode 63 2 0, Mode 63 2 0,
     Mode 63 2 0, Mode 63 2 0, Mode 63 2 0, Mode 63 2 0, Mode 63 2 0, Mode 63 2 0, Mode 63 2 0,
     Mode 63 2 0, Mode 63 2 0, Mode 63 2 0, Mode 63 2 0, Mode 63 2 0, Mode 63 2 0, Mode 63 2 0,
     Mode 63 2 0, Mode 63 2 0, Mode 63 2 0, Mode 63 2 0, Mode 63 2 0, Mode 63 2 0, Mode 63 2 0,
     Mode 63 2 0, Mode 63 2 0, Mode 63 2 0, Mode 63 2 0, Mode 63 2 0, Mode 63 2 0, Mode 63 2 0,
     Mode 63 2 0, Mode 0 2 0, Mode 63 2 0, Mode 63 2 0, Mode 63 2 0, Mode 63 2 0, Mode 63 2 0,
     Mode 63 2 0, Mode 63 2 0, Mode 63 2 0]"

text \<open>Lines 48699 to 48848.\<close>

definition ts_lex_modes_60 :: "TSLexerMode list" where
  "ts_lex_modes_60 =
    [Mode 63 2 0, Mode 0 2 0, Mode 63 2 0, Mode 63 2 0, Mode 63 2 0, Mode 63 2 0, Mode 63 2 0,
     Mode 0 2 0, Mode 63 2 0, Mode 63 2 0, Mode 63 2 0, Mode 63 2 0, Mode 63 2 0, Mode 63 2 0,
     Mode 63 2 0, Mode 63 2 0, Mode 63 2 0, Mode 63 2 0, Mode 63 2 0, Mode 63 2 0, Mode 63 2 0,
     Mode 63 2 0, Mode 63 2 0, Mode 63 2 0, Mode 63 2 0, Mode 63 2 0, Mode 63 2 0, Mode 63 2 0,
     Mode 63 2 0, Mode 63 2 0, Mode 63 2 0, Mode 63 2 0, Mode 63 2 0, Mode 63 2 0, Mode 63 2 0,
     Mode 63 2 0, Mode 63 2 0, Mode 63 2 0, Mode 63 2 0, Mode 63 2 0, Mode 63 2 0, Mode 63 2 0,
     Mode 63 2 0, Mode 63 2 0, Mode 63 2 0, Mode 0 2 0, Mode 63 2 0, Mode 63 2 0, Mode 63 2 0,
     Mode 63 2 0, Mode 63 2 0, Mode 0 2 0, Mode 63 2 0, Mode 0 2 0, Mode 63 2 0, Mode 63 2 0,
     Mode 63 2 0, Mode 63 2 0, Mode 63 2 0, Mode 63 2 0, Mode 63 2 0, Mode 63 2 0, Mode 63 2 0,
     Mode 63 2 0, Mode 63 2 0, Mode 63 2 0, Mode 63 2 0, Mode 63 2 0, Mode 63 2 0, Mode 63 2 0,
     Mode 63 2 0, Mode 63 2 0, Mode 63 2 0, Mode 63 2 0, Mode 63 2 0, Mode 63 2 0, Mode 63 2 0,
     Mode 63 2 0, Mode 63 2 0, Mode 63 2 0, Mode 0 2 0, Mode 63 2 2, Mode 63 2 0, Mode 63 2 0,
     Mode 63 2 0, Mode 63 2 0, Mode 63 2 0, Mode 63 2 0, Mode 63 2 0, Mode 63 2 0, Mode 63 2 0,
     Mode 63 2 0, Mode 63 2 0, Mode 63 2 0, Mode 63 2 0, Mode 63 2 0, Mode 63 2 0, Mode 63 2 0,
     Mode 63 2 0, Mode 63 2 0, Mode 63 2 0, Mode 63 2 0, Mode 63 2 0, Mode 63 2 0, Mode 63 2 0,
     Mode 63 2 0, Mode 63 2 0, Mode 63 2 0, Mode 63 2 0, Mode 63 2 0, Mode 63 2 0, Mode 63 2 0,
     Mode 63 2 0, Mode 63 2 0, Mode 63 2 0, Mode 63 2 0, Mode 63 2 0, Mode 63 2 0, Mode 63 2 0,
     Mode 63 2 0, Mode 63 2 0, Mode 63 2 0, Mode 63 2 0, Mode 63 2 0, Mode 63 2 2, Mode 63 2 0,
     Mode 63 2 0, Mode 63 2 0, Mode 63 2 0, Mode 63 2 0, Mode 63 2 0, Mode 63 2 0, Mode 63 2 0,
     Mode 63 2 0, Mode 63 2 0, Mode 63 2 0, Mode 63 2 0, Mode 63 2 0, Mode 63 2 0, Mode 63 2 0,
     Mode 63 2 0, Mode 63 2 0, Mode 63 2 0, Mode 63 2 0, Mode 63 2 0, Mode 63 2 0, Mode 0 2 0,
     Mode 63 2 0, Mode 63 2 0, Mode 63 2 0]"

text \<open>Lines 48849 to 48998.\<close>

definition ts_lex_modes_61 :: "TSLexerMode list" where
  "ts_lex_modes_61 =
    [Mode 63 2 0, Mode 63 2 0, Mode 63 2 0, Mode 63 2 0, Mode 63 2 0, Mode 63 2 0, Mode 63 2 0,
     Mode 63 2 0, Mode 63 2 0, Mode 63 2 0, Mode 63 2 0, Mode 63 2 0, Mode 63 2 0, Mode 63 2 0,
     Mode 63 2 0, Mode 63 2 0, Mode 63 2 0, Mode 63 2 0, Mode 63 2 0, Mode 63 2 0, Mode 63 2 0,
     Mode 63 2 0, Mode 63 2 0, Mode 63 2 0, Mode 63 2 0, Mode 63 2 0, Mode 63 2 0, Mode 63 2 0,
     Mode 63 2 0, Mode 63 2 0, Mode 63 2 0, Mode 63 2 0, Mode 63 2 0, Mode 63 2 0, Mode 63 2 0,
     Mode 63 2 0, Mode 63 2 0, Mode 0 2 0, Mode 63 2 0, Mode 63 2 0, Mode 63 2 0, Mode 63 2 0,
     Mode 63 2 0, Mode 63 2 0, Mode 63 2 0, Mode 63 2 0, Mode 63 2 0, Mode 63 2 0, Mode 63 2 0,
     Mode 63 2 0, Mode 63 2 0, Mode 63 2 0, Mode 63 2 0, Mode 0 2 0, Mode 63 2 0, Mode 63 2 0,
     Mode 63 2 0, Mode 0 2 0, Mode 63 2 0, Mode 0 2 0, Mode 63 2 0, Mode 63 2 0, Mode 0 2 0,
     Mode 63 2 0, Mode 63 2 0, Mode 63 2 0, Mode 63 2 0, Mode 63 2 0, Mode 63 2 0, Mode 63 2 0,
     Mode 63 2 0, Mode 63 2 0, Mode 63 2 0, Mode 63 2 0, Mode 63 2 0, Mode 63 2 0, Mode 63 2 0,
     Mode 63 2 0, Mode 63 2 0, Mode 63 2 0, Mode 63 2 0, Mode 63 2 0, Mode 63 2 0, Mode 63 2 0,
     Mode 63 2 0, Mode 63 2 0, Mode 63 2 0, Mode 63 2 0, Mode 63 2 0, Mode 63 2 0, Mode 63 2 0,
     Mode 63 2 2, Mode 63 2 0, Mode 63 2 0, Mode 63 2 0, Mode 63 2 0, Mode 63 2 0, Mode 63 2 0,
     Mode 63 2 0, Mode 63 2 0, Mode 63 2 0, Mode 63 2 0, Mode 63 2 0, Mode 20 2 0, Mode 63 2 0,
     Mode 63 2 0, Mode 0 2 0, Mode 63 2 0, Mode 63 2 0, Mode 63 2 0, Mode 63 2 0, Mode 63 2 0,
     Mode 63 2 0, Mode 63 2 0, Mode 63 2 0, Mode 63 2 0, Mode 63 2 0, Mode 63 2 0, Mode 63 2 0,
     Mode 63 2 0, Mode 63 2 0, Mode 63 2 0, Mode 63 2 0, Mode 63 2 0, Mode 63 2 0, Mode 63 2 0,
     Mode 63 2 0, Mode 63 2 0, Mode 63 2 0, Mode 63 2 0, Mode 63 2 0, Mode 63 2 0, Mode 63 2 0,
     Mode 63 2 0, Mode 63 2 0, Mode 63 2 0, Mode 63 2 0, Mode 20 2 0, Mode 63 2 0, Mode 63 2 0,
     Mode 63 2 0, Mode 63 2 0, Mode 63 2 0, Mode 63 2 0, Mode 63 2 0, Mode 63 2 0, Mode 63 2 0,
     Mode 63 2 0, Mode 63 2 0, Mode 63 2 0]"

text \<open>Lines 48999 to 49148.\<close>

definition ts_lex_modes_62 :: "TSLexerMode list" where
  "ts_lex_modes_62 =
    [Mode 63 2 0, Mode 63 2 0, Mode 63 2 0, Mode 63 2 0, Mode 63 2 0, Mode 63 2 0, Mode 63 2 0,
     Mode 63 2 0, Mode 63 2 0, Mode 63 2 0, Mode 63 2 0, Mode 63 2 0, Mode 63 2 0, Mode 63 2 0,
     Mode 63 2 0, Mode 63 2 0, Mode 63 2 0, Mode 63 2 0, Mode 63 2 0, Mode 0 2 0, Mode 63 2 0,
     Mode 63 2 0, Mode 63 2 0, Mode 63 2 0, Mode 63 2 0, Mode 63 2 0, Mode 63 2 0, Mode 63 2 0,
     Mode 63 2 0, Mode 63 2 0, Mode 63 2 0, Mode 63 2 0, Mode 63 2 0, Mode 63 2 0, Mode 63 2 0,
     Mode 63 2 0, Mode 63 2 0, Mode 63 2 0, Mode 63 2 0, Mode 63 2 0, Mode 63 2 0, Mode 63 2 0,
     Mode 63 2 0, Mode 63 2 0, Mode 63 2 0, Mode 63 2 0, Mode 63 2 0, Mode 219 2 0, Mode 63 2 0,
     Mode 63 2 0, Mode 63 2 0, Mode 63 2 0, Mode 63 2 0, Mode 63 2 0, Mode 63 2 0, Mode 63 2 0,
     Mode 63 2 0, Mode 63 2 0, Mode 63 2 0, Mode 63 2 0, Mode 63 2 0, Mode 63 2 0, Mode 63 2 0,
     Mode 63 2 0, Mode 63 2 0, Mode 0 2 0, Mode 63 2 0, Mode 63 2 0, Mode 63 2 0, Mode 0 2 0,
     Mode 63 2 0, Mode 63 2 0, Mode 63 2 0, Mode 63 2 0, Mode 63 2 0, Mode 63 2 0, Mode 63 2 0,
     Mode 63 2 0, Mode 63 2 0, Mode 63 2 0, Mode 63 2 0, Mode 63 2 0, Mode 63 2 0, Mode 63 2 0,
     Mode 63 2 0, Mode 63 2 0, Mode 63 2 0, Mode 63 2 0, Mode 63 2 0, Mode 63 2 0, Mode 63 2 0,
     Mode 63 2 0, Mode 63 2 2, Mode 63 2 0, Mode 63 2 0, Mode 63 2 0, Mode 63 2 0, Mode 63 2 0,
     Mode 63 2 0, Mode 63 2 0, Mode 63 2 0, Mode 63 2 0, Mode 63 2 0, Mode 63 2 0, Mode 63 2 0,
     Mode 63 2 0, Mode 63 2 0, Mode 63 2 0, Mode 63 2 0, Mode 63 2 2, Mode 63 2 0, Mode 63 2 0,
     Mode 63 2 0, Mode 63 2 0, Mode 63 2 0, Mode 63 2 0, Mode 63 2 0, Mode 63 2 0, Mode 63 2 0,
     Mode 63 2 0, Mode 63 2 0, Mode 63 2 0, Mode 0 2 0, Mode 63 2 0, Mode 63 2 0, Mode 63 2 0,
     Mode 63 2 0, Mode 63 2 0, Mode 63 2 0, Mode 63 2 0, Mode 63 2 0, Mode 63 2 0, Mode 63 2 0,
     Mode 63 2 0, Mode 63 2 0, Mode 63 2 0, Mode 0 2 0, Mode 63 2 0, Mode 63 2 0, Mode 0 2 0,
     Mode 0 2 0, Mode 63 2 0, Mode 63 2 0, Mode 0 2 0, Mode 0 2 0, Mode 63 2 0, Mode 0 2 0,
     Mode 63 2 0, Mode 63 2 0, Mode 63 2 0]"

text \<open>Lines 49149 to 49298.\<close>

definition ts_lex_modes_63 :: "TSLexerMode list" where
  "ts_lex_modes_63 =
    [Mode 63 2 0, Mode 63 2 0, Mode 63 2 0, Mode 63 2 0, Mode 63 2 0, Mode 63 2 0, Mode 63 2 0,
     Mode 63 2 0, Mode 63 2 0, Mode 63 2 0, Mode 63 2 0, Mode 63 2 0, Mode 63 2 0, Mode 63 2 0,
     Mode 63 2 0, Mode 63 2 0, Mode 63 2 0, Mode 63 2 0, Mode 63 2 0, Mode 63 2 0, Mode 0 2 0,
     Mode 0 2 0, Mode 63 2 0, Mode 63 2 0, Mode 63 2 0, Mode 63 2 0, Mode 63 2 0, Mode 63 2 0,
     Mode 63 2 0, Mode 63 2 0, Mode 63 2 0, Mode 63 2 0, Mode 63 2 0, Mode 63 2 0, Mode 63 2 0,
     Mode 63 2 0, Mode 63 2 0, Mode 63 2 0, Mode 63 2 0, Mode 63 2 0, Mode 63 2 0, Mode 63 2 0,
     Mode 63 2 0, Mode 63 2 0, Mode 63 2 0, Mode 63 2 0, Mode 63 2 0, Mode 63 2 0, Mode 63 2 0,
     Mode 63 2 0, Mode 63 2 0, Mode 63 2 0, Mode 63 2 0, Mode 63 2 0, Mode 63 2 0, Mode 63 2 0,
     Mode 63 2 0, Mode 0 2 0, Mode 63 2 0, Mode 63 2 0, Mode 63 2 0, Mode 63 2 0, Mode 63 2 0,
     Mode 63 2 0, Mode 63 2 0, Mode 63 2 0, Mode 63 2 0, Mode 63 2 0, Mode 63 2 0, Mode 63 2 0,
     Mode 63 2 0, Mode 63 2 0, Mode 63 2 0, Mode 63 2 0, Mode 63 2 0, Mode 63 2 0, Mode 63 2 0,
     Mode 63 2 0, Mode 63 2 0, Mode 63 2 0, Mode 63 2 0, Mode 63 2 0, Mode 63 2 0, Mode 63 2 0,
     Mode 63 2 0, Mode 63 2 0, Mode 63 2 0, Mode 63 2 0, Mode 63 2 0, Mode 63 2 0, Mode 63 2 0,
     Mode 63 2 0, Mode 63 2 2, Mode 63 2 0, Mode 63 2 0, Mode 63 2 0, Mode 63 2 0, Mode 63 2 0,
     Mode 0 2 0, Mode 63 2 0, Mode 63 2 0, Mode 63 2 0, Mode 63 2 0, Mode 63 2 0, Mode 63 2 0,
     Mode 63 2 0, Mode 63 2 0, Mode 63 2 0, Mode 63 2 0, Mode 63 2 0, Mode 63 2 0, Mode 63 2 0,
     Mode 0 2 0, Mode 63 2 0, Mode 63 2 0, Mode 63 2 0, Mode 0 2 0, Mode 63 2 0, Mode 63 2 0,
     Mode 63 2 0, Mode 63 2 0, Mode 63 2 0, Mode 63 2 0, Mode 63 2 0, Mode 63 2 0, Mode 63 2 0,
     Mode 63 2 0, Mode 63 2 0, Mode 63 2 0, Mode 63 2 0, Mode 63 2 0, Mode 63 2 0, Mode 63 2 0,
     Mode 63 2 0, Mode 63 2 0, Mode 63 2 0, Mode 63 2 0, Mode 63 2 0, Mode 63 2 0, Mode 63 2 0,
     Mode 63 2 0, Mode 63 2 0, Mode 63 2 0, Mode 63 2 0, Mode 63 2 0, Mode 63 2 0, Mode 63 2 2,
     Mode 63 2 0, Mode 63 2 0, Mode 0 2 0]"

text \<open>Lines 49299 to 49448.\<close>

definition ts_lex_modes_64 :: "TSLexerMode list" where
  "ts_lex_modes_64 =
    [Mode 63 2 0, Mode 63 2 0, Mode 63 2 0, Mode 63 2 0, Mode 63 2 0, Mode 0 2 0, Mode 63 2 0,
     Mode 0 2 0, Mode 63 2 0, Mode 63 2 0, Mode 63 2 0, Mode 63 2 0, Mode 63 2 0, Mode 63 2 0,
     Mode 63 2 0, Mode 63 2 0, Mode 63 2 0, Mode 63 2 0, Mode 63 2 0, Mode 63 2 0, Mode 63 2 0,
     Mode 63 2 0, Mode 63 2 0, Mode 63 2 0, Mode 63 2 0, Mode 63 2 0, Mode 63 2 0, Mode 63 2 0,
     Mode 63 2 0, Mode 63 2 0, Mode 63 2 0, Mode 63 2 2, Mode 63 2 0, Mode 63 2 0, Mode 63 2 0,
     Mode 63 2 0, Mode 63 2 0, Mode 63 2 0, Mode 63 2 0, Mode 63 2 0, Mode 63 2 0, Mode 63 2 0,
     Mode 63 2 0, Mode 63 2 0, Mode 63 2 0, Mode 63 2 0, Mode 63 2 0, Mode 63 2 0, Mode 63 2 0,
     Mode 63 2 0, Mode 63 2 0, Mode 63 2 0, Mode 0 2 0, Mode 63 2 0, Mode 63 2 0, Mode 63 2 0,
     Mode 63 2 0, Mode 63 2 0, Mode 63 2 0, Mode 63 2 0, Mode 63 2 0, Mode 63 2 0, Mode 63 2 0,
     Mode 63 2 0, Mode 63 2 0, Mode 63 2 0, Mode 63 2 0, Mode 63 2 0, Mode 63 2 0, Mode 63 2 0,
     Mode 63 2 0, Mode 63 2 0, Mode 63 2 0, Mode 63 2 0, Mode 63 2 0, Mode 63 2 0, Mode 63 2 0,
     Mode 63 2 0, Mode 63 2 0, Mode 63 2 0, Mode 63 2 0, Mode 63 2 0, Mode 63 2 0, Mode 63 2 0,
     Mode 63 2 0, Mode 63 2 0, Mode 63 2 0, Mode 63 2 0, Mode 63 2 0, Mode 63 2 0, Mode 63 2 0,
     Mode 63 2 0, Mode 63 2 0, Mode 63 2 0, Mode 63 2 0, Mode 0 2 0, Mode 63 2 0, Mode 63 2 0,
     Mode 63 2 0, Mode 63 2 0, Mode 63 2 0, Mode 63 2 0, Mode 63 2 0, Mode 63 2 0, Mode 63 2 0,
     Mode 63 2 0, Mode 63 2 0, Mode 0 2 0, Mode 63 2 0, Mode 63 2 0, Mode 63 2 0, Mode 63 2 0,
     Mode 63 2 0, Mode 63 2 0, Mode 63 2 0, Mode 63 2 0, Mode 63 2 0, Mode 63 2 0, Mode 63 2 0,
     Mode 63 2 0, Mode 63 2 0, Mode 15 2 0, Mode 63 2 0, Mode 63 2 0, Mode 63 2 0, Mode 63 2 0,
     Mode 63 2 0, Mode 63 2 0, Mode 63 2 0, Mode 63 2 0, Mode 63 2 0, Mode 15 2 0, Mode 63 2 0,
     Mode 63 2 0, Mode 63 2 0, Mode 63 2 0, Mode 63 2 0, Mode 63 2 0, Mode 63 2 0, Mode 63 2 0,
     Mode 63 2 0, Mode 63 2 0, Mode 63 2 2, Mode 63 2 0, Mode 63 2 0, Mode 63 2 0, Mode 63 2 0,
     Mode 63 2 0, Mode 63 2 0, Mode 63 2 0]"

text \<open>Lines 49449 to 49598.\<close>

definition ts_lex_modes_65 :: "TSLexerMode list" where
  "ts_lex_modes_65 =
    [Mode 63 2 0, Mode 63 2 0, Mode 63 2 0, Mode 63 2 0, Mode 63 2 0, Mode 63 2 0, Mode 63 2 0,
     Mode 63 2 0, Mode 63 2 0, Mode 63 2 0, Mode 63 2 0, Mode 63 2 0, Mode 63 2 0, Mode 63 2 0,
     Mode 63 2 0, Mode 63 2 0, Mode 63 2 0, Mode 63 2 0, Mode 63 2 0, Mode 63 2 0, Mode 63 2 0,
     Mode 63 2 0, Mode 63 2 0, Mode 63 2 0, Mode 63 2 0, Mode 63 2 0, Mode 63 2 2, Mode 63 2 0,
     Mode 63 2 0, Mode 63 2 0, Mode 63 2 0, Mode 63 2 0, Mode 63 2 0, Mode 63 2 0, Mode 63 2 0,
     Mode 63 2 0, Mode 63 2 0, Mode 63 2 0, Mode 63 2 0, Mode 63 2 0, Mode 63 2 0, Mode 63 2 0,
     Mode 63 2 0, Mode 63 2 2, Mode 63 2 0, Mode 63 2 0, Mode 63 2 0, Mode 63 2 0, Mode 63 2 0,
     Mode 63 2 0, Mode 63 2 0, Mode 63 2 0, Mode 63 2 0, Mode 63 2 0, Mode 63 2 0, Mode 63 2 0,
     Mode 63 2 0, Mode 63 2 0, Mode 63 2 0, Mode 63 2 0, Mode 63 2 0, Mode 63 2 0, Mode 63 2 0,
     Mode 63 2 0, Mode 63 2 0, Mode 0 2 0, Mode 63 2 0, Mode 63 2 0, Mode 63 2 0, Mode 63 2 0,
     Mode 63 2 0, Mode 63 2 0, Mode 63 2 0, Mode 0 2 0, Mode 63 2 0, Mode 63 2 0, Mode 63 2 0,
     Mode 63 2 0, Mode 63 2 0, Mode 63 2 0, Mode 63 2 0, Mode 63 2 0, Mode 63 2 0, Mode 63 2 0,
     Mode 63 2 0, Mode 63 2 0, Mode 63 2 0, Mode 63 2 0, Mode 63 2 0, Mode 63 2 0, Mode 63 2 0,
     Mode 63 2 0, Mode 63 2 2, Mode 63 2 2, Mode 63 2 0, Mode 63 2 0, Mode 63 2 0, Mode 63 2 0,
     Mode 63 2 0, Mode 63 2 0, Mode 63 2 0, Mode 63 2 0, Mode 63 2 0, Mode 63 2 0, Mode 63 2 0,
     Mode 63 2 0, Mode 63 2 0, Mode 63 2 0, Mode 63 2 0, Mode 63 2 0, Mode 63 2 0, Mode 63 2 0,
     Mode 63 2 0, Mode 63 2 0, Mode 63 2 0, Mode 63 2 0, Mode 63 2 0, Mode 63 2 0, Mode 63 2 0,
     Mode 63 2 0, Mode 63 2 0, Mode 63 2 0, Mode 63 2 0, Mode 63 2 0, Mode 63 2 0, Mode 63 2 0,
     Mode 63 2 0, Mode 63 2 0, Mode 63 2 0, Mode 63 2 0, Mode 63 2 0, Mode 63 2 0, Mode 63 2 0,
     Mode 63 2 0, Mode 63 2 0, Mode 63 2 0, Mode 63 2 0, Mode 63 2 0, Mode 63 2 0, Mode 0 2 0,
     Mode 63 2 0, Mode 63 2 0, Mode 63 2 0, Mode 63 2 0, Mode 63 2 0, Mode 63 2 0, Mode 63 2 0,
     Mode 63 2 0, Mode 63 2 0, Mode 63 2 0]"

text \<open>Lines 49599 to 49748.\<close>

definition ts_lex_modes_66 :: "TSLexerMode list" where
  "ts_lex_modes_66 =
    [Mode 63 2 0, Mode 63 2 0, Mode 63 2 0, Mode 63 2 0, Mode 63 2 0, Mode 63 2 0, Mode 63 2 0,
     Mode 0 2 0, Mode 63 2 0, Mode 63 2 0, Mode 63 2 0, Mode 63 2 0, Mode 63 2 0, Mode 63 2 0,
     Mode 63 2 0, Mode 63 2 0, Mode 63 2 2, Mode 63 2 0, Mode 63 2 0, Mode 63 2 0, Mode 63 2 0,
     Mode 63 2 0, Mode 63 2 0, Mode 63 2 0, Mode 63 2 0, Mode 63 2 0, Mode 63 2 0, Mode 63 2 0,
     Mode 63 2 0, Mode 63 2 0, Mode 63 2 0, Mode 63 2 0, Mode 63 2 0, Mode 63 2 0, Mode 63 2 0,
     Mode 63 2 0, Mode 63 2 0, Mode 63 2 0, Mode 63 2 0, Mode 63 2 0, Mode 63 2 2, Mode 63 2 0,
     Mode 63 2 0, Mode 63 2 0, Mode 63 2 0, Mode 63 2 0, Mode 63 2 0, Mode 63 2 0, Mode 4 2 0,
     Mode 63 2 0, Mode 4 2 0, Mode 63 2 0, Mode 63 2 0, Mode 63 2 0, Mode 63 2 0, Mode 63 2 0,
     Mode 63 2 0, Mode 63 2 0, Mode 63 2 0, Mode 63 2 0, Mode 63 2 0, Mode 63 2 0, Mode 63 2 0,
     Mode 63 2 0, Mode 63 2 0, Mode 63 2 0, Mode 63 2 0, Mode 63 2 0, Mode 63 2 0, Mode 63 2 0,
     Mode 63 2 0, Mode 63 2 0, Mode 63 2 0, Mode 63 2 0, Mode 63 2 0, Mode 63 2 0, Mode 63 2 0,
     Mode 63 2 0, Mode 63 2 0, Mode 63 2 0, Mode 63 2 0, Mode 63 2 0, Mode 63 2 0, Mode 63 2 0,
     Mode 63 2 0, Mode 63 2 0, Mode 63 2 0, Mode 63 2 0, Mode 63 2 0, Mode 63 2 0, Mode 63 2 0,
     Mode 63 2 0, Mode 63 2 0, Mode 63 2 0, Mode 63 2 0, Mode 63 2 0, Mode 63 2 0, Mode 63 2 0,
     Mode 63 2 0, Mode 63 2 0, Mode 63 2 0, Mode 63 2 0, Mode 63 2 0, Mode 63 2 0, Mode 63 2 0,
     Mode 63 2 0, Mode 63 2 0, Mode 63 2 0, Mode 63 2 0, Mode 63 2 0, Mode 63 2 0, Mode 63 2 0,
     Mode 63 2 0, Mode 63 2 0, Mode 63 2 0, Mode 63 2 0, Mode 63 2 0, Mode 63 2 0, Mode 63 2 0,
     Mode 63 2 0, Mode 63 2 0, Mode 63 2 0, Mode 63 2 0, Mode 63 2 0, Mode 63 2 0, Mode 0 2 0,
     Mode 63 2 0, Mode 63 2 0, Mode 63 2 0, Mode 63 2 0, Mode 63 2 0, Mode 63 2 0, Mode 63 2 0,
     Mode 63 2 0, Mode 63 2 0, Mode 63 2 0, Mode 63 2 0, Mode 63 2 0, Mode 63 2 0, Mode 63 2 0,
     Mode 63 2 0, Mode 63 2 0, Mode 63 2 0, Mode 0 2 0, Mode 63 2 0, Mode 63 2 0, Mode 63 2 2,
     Mode 63 2 0, Mode 63 2 0, Mode 63 2 0]"

text \<open>Lines 49749 to 49898.\<close>

definition ts_lex_modes_67 :: "TSLexerMode list" where
  "ts_lex_modes_67 =
    [Mode 63 2 0, Mode 63 2 0, Mode 63 2 0, Mode 63 2 0, Mode 63 2 0, Mode 63 2 0, Mode 63 2 0,
     Mode 63 2 0, Mode 63 2 0, Mode 63 2 0, Mode 63 2 0, Mode 63 2 0, Mode 63 2 0, Mode 63 2 0,
     Mode 63 2 0, Mode 63 2 0, Mode 63 2 0, Mode 63 2 0, Mode 63 2 0, Mode 63 2 0, Mode 63 2 0,
     Mode 63 2 0, Mode 63 2 0, Mode 0 2 0, Mode 63 2 0, Mode 63 2 0, Mode 63 2 0, Mode 63 2 0,
     Mode 63 2 0, Mode 63 2 0, Mode 63 2 0, Mode 63 2 0, Mode 63 2 0, Mode 63 2 0, Mode 63 2 0,
     Mode 63 2 0, Mode 63 2 0, Mode 63 2 0, Mode 63 2 0, Mode 63 2 0, Mode 63 2 0, Mode 63 2 0,
     Mode 63 2 0, Mode 0 2 0, Mode 63 2 0, Mode 63 2 0, Mode 63 2 0, Mode 63 2 0, Mode 0 2 0,
     Mode 63 2 0, Mode 63 2 0, Mode 63 2 0, Mode 63 2 0, Mode 0 2 0, Mode 63 2 0, Mode 63 2 2,
     Mode 63 2 0, Mode 63 2 0, Mode 63 2 0, Mode 63 2 0, Mode 63 2 0, Mode 63 2 0, Mode 63 2 0,
     Mode 63 2 0, Mode 63 2 0, Mode 63 2 0, Mode 63 2 0, Mode 63 2 0, Mode 63 2 0, Mode 63 2 0,
     Mode 63 2 0, Mode 63 2 0, Mode 63 2 0, Mode 63 2 0, Mode 63 2 0, Mode 63 2 0, Mode 63 2 0,
     Mode 63 2 0, Mode 63 2 0, Mode 63 2 0, Mode 63 2 0, Mode 63 2 0, Mode 63 2 0, Mode 63 2 0,
     Mode 63 2 0, Mode 63 2 0, Mode 63 2 0, Mode 63 2 0, Mode 63 2 0, Mode 63 2 0, Mode 63 2 0,
     Mode 63 2 0, Mode 63 2 0, Mode 63 2 0, Mode 63 2 0, Mode 63 2 0, Mode 63 2 0, Mode 63 2 0,
     Mode 63 2 0, Mode 63 2 0, Mode 63 2 0, Mode 63 2 0, Mode 63 2 0, Mode 63 2 0, Mode 63 2 0,
     Mode 63 2 0, Mode 63 2 0, Mode 63 2 0, Mode 63 2 0, Mode 63 2 0, Mode 63 2 0, Mode 63 2 0,
     Mode 63 2 0, Mode 63 2 0, Mode 63 2 2, Mode 63 2 0, Mode 63 2 0, Mode 63 2 0, Mode 63 2 0,
     Mode 63 2 0, Mode 63 2 0, Mode 63 2 0, Mode 63 2 0, Mode 63 2 0, Mode 63 2 0, Mode 63 2 0,
     Mode 63 2 0, Mode 63 2 0, Mode 63 2 0, Mode 63 2 0, Mode 63 2 0, Mode 63 2 0, Mode 63 2 0,
     Mode 63 2 0, Mode 63 2 0, Mode 63 2 0, Mode 63 2 0, Mode 63 2 0, Mode 63 2 0, Mode 63 2 0,
     Mode 63 2 0, Mode 20 2 0, Mode 20 2 0, Mode 63 2 0, Mode 63 2 0, Mode 63 2 0, Mode 63 2 0,
     Mode 0 2 0, Mode 0 2 0, Mode 0 2 0]"

text \<open>Lines 49899 to 50048.\<close>

definition ts_lex_modes_68 :: "TSLexerMode list" where
  "ts_lex_modes_68 =
    [Mode 63 2 0, Mode 63 2 0, Mode 63 2 0, Mode 63 2 0, Mode 63 2 0, Mode 63 2 0, Mode 63 2 0,
     Mode 0 2 0, Mode 63 2 0, Mode 63 2 0, Mode 0 2 0, Mode 63 2 2, Mode 63 2 0, Mode 63 2 0,
     Mode 0 2 0, Mode 63 2 0, Mode 63 2 0, Mode 63 2 0, Mode 63 2 0, Mode 63 2 0, Mode 63 2 0,
     Mode 63 2 0, Mode 63 2 0, Mode 63 2 0, Mode 63 2 0, Mode 63 2 0, Mode 63 2 0, Mode 15 2 0,
     Mode 15 2 0, Mode 63 2 0, Mode 63 2 0, Mode 63 2 2, Mode 63 2 0, Mode 63 2 0, Mode 63 2 0,
     Mode 63 2 0, Mode 63 2 0, Mode 63 2 0, Mode 63 2 0, Mode 63 2 0, Mode 0 2 0, Mode 63 2 0,
     Mode 63 2 0, Mode 63 2 0, Mode 63 2 0, Mode 63 2 0, Mode 63 2 0, Mode 63 2 0, Mode 63 2 0,
     Mode 0 2 0, Mode 63 2 0, Mode 63 2 0, Mode 63 2 0, Mode 63 2 0, Mode 63 2 0, Mode 63 2 0,
     Mode 63 2 0, Mode 63 2 0, Mode 219 2 0, Mode 63 2 0, Mode 63 2 0, Mode 63 2 0, Mode 63 2 0,
     Mode 63 2 0, Mode 63 2 0, Mode 63 2 0, Mode 63 2 0, Mode 63 2 0, Mode 63 2 0, Mode 63 2 0,
     Mode 63 2 0, Mode 63 2 0, Mode 63 2 0, Mode 63 2 0, Mode 63 2 0, Mode 63 2 0, Mode 63 2 0,
     Mode 63 2 0, Mode 63 2 0, Mode 63 2 0, Mode 63 2 0, Mode 63 2 0, Mode 63 2 0, Mode 63 2 0,
     Mode 0 2 0, Mode 0 2 0, Mode 63 2 0, Mode 0 2 0, Mode 63 2 0, Mode 63 2 0, Mode 63 2 0,
     Mode 63 2 0, Mode 63 2 0, Mode 63 2 0, Mode 63 2 0, Mode 63 2 0, Mode 63 2 0, Mode 63 2 0,
     Mode 63 2 0, Mode 63 2 0, Mode 63 2 0, Mode 63 2 0, Mode 63 2 0, Mode 63 2 0, Mode 63 2 0,
     Mode 63 2 0, Mode 63 2 0, Mode 63 2 0, Mode 63 2 0, Mode 63 2 0, Mode 63 2 0, Mode 63 2 0,
     Mode 63 2 0, Mode 63 2 0, Mode 63 2 0, Mode 63 2 0, Mode 63 2 0, Mode 63 2 0, Mode 63 2 2,
     Mode 63 2 0, Mode 63 2 0, Mode 63 2 0, Mode 0 2 0, Mode 0 2 0, Mode 63 2 0, Mode 63 2 0,
     Mode 63 2 0, Mode 63 2 0, Mode 63 2 0, Mode 63 2 0, Mode 63 2 0, Mode 63 2 0, Mode 63 2 0,
     Mode 63 2 0, Mode 63 2 0, Mode 63 2 0, Mode 63 2 0, Mode 63 2 0, Mode 63 2 0, Mode 63 2 0,
     Mode 63 2 2, Mode 63 2 0, Mode 63 2 0, Mode 63 2 0, Mode 63 2 0, Mode 63 2 0, Mode 63 2 0,
     Mode 63 2 0, Mode 63 2 0, Mode 63 2 0]"

text \<open>Lines 50049 to 50198.\<close>

definition ts_lex_modes_69 :: "TSLexerMode list" where
  "ts_lex_modes_69 =
    [Mode 63 2 0, Mode 63 2 0, Mode 63 2 0, Mode 63 2 0, Mode 63 2 0, Mode 63 2 0, Mode 63 2 2,
     Mode 63 2 0, Mode 63 2 0, Mode 63 2 0, Mode 63 2 0, Mode 63 2 0, Mode 63 2 0, Mode 63 2 0,
     Mode 63 2 0, Mode 63 2 0, Mode 63 2 0, Mode 63 2 0, Mode 63 2 0, Mode 63 2 0, Mode 63 2 0,
     Mode 63 2 0, Mode 63 2 0, Mode 63 2 0, Mode 63 2 0, Mode 63 2 0, Mode 63 2 0, Mode 63 2 0,
     Mode 63 2 0, Mode 63 2 0, Mode 63 2 0, Mode 63 2 0, Mode 63 2 0, Mode 63 2 0, Mode 63 2 0,
     Mode 63 2 0, Mode 63 2 0, Mode 0 2 0, Mode 63 2 0, Mode 63 2 0, Mode 63 2 0, Mode 63 2 0,
     Mode 63 2 0, Mode 63 2 0, Mode 63 2 0, Mode 63 2 0, Mode 63 2 0, Mode 63 2 2, Mode 63 2 0,
     Mode 63 2 0, Mode 63 2 0, Mode 63 2 0, Mode 63 2 0, Mode 63 2 0, Mode 63 2 0, Mode 63 2 0,
     Mode 63 2 0, Mode 63 2 0, Mode 63 2 0, Mode 63 2 0, Mode 63 2 0, Mode 63 2 0, Mode 63 2 2,
     Mode 63 2 0, Mode 63 2 0, Mode 63 2 0, Mode 63 2 0, Mode 63 2 2, Mode 63 2 0, Mode 63 2 0,
     Mode 63 2 0, Mode 63 2 2, Mode 63 2 0, Mode 63 2 0, Mode 0 2 0, Mode 63 2 0, Mode 0 2 0,
     Mode 63 2 0, Mode 63 2 0, Mode 63 2 0, Mode 63 2 0, Mode 63 2 0, Mode 63 2 0, Mode 63 2 2,
     Mode 63 2 0, Mode 63 2 0, Mode 63 2 0, Mode 63 2 0, Mode 63 2 0, Mode 63 2 0, Mode 63 2 0,
     Mode 63 2 0, Mode 63 2 0, Mode 63 2 0, Mode 63 2 0, Mode 63 2 0, Mode 63 2 0, Mode 0 2 0,
     Mode 63 2 0, Mode 63 2 0, Mode 0 2 0, Mode 63 2 0, Mode 63 2 0, Mode 63 2 0, Mode 0 2 0,
     Mode 63 2 0, Mode 63 2 0, Mode 63 2 0, Mode 63 2 0, Mode 63 2 0, Mode 63 2 0, Mode 63 2 0,
     Mode 63 2 0, Mode 63 2 0, Mode 63 2 0, Mode 63 2 0, Mode 63 2 0, Mode 0 2 0, Mode 63 2 0,
     Mode 63 2 0, Mode 63 2 0, Mode 0 2 0, Mode 63 2 0, Mode 63 2 0, Mode 63 2 0, Mode 63 2 0,
     Mode 63 2 0, Mode 63 2 0, Mode 63 2 0, Mode 63 2 0, Mode 63 2 0, Mode 63 2 0, Mode 63 2 0,
     Mode 63 2 0, Mode 63 2 0, Mode 63 2 0, Mode 63 2 0, Mode 63 2 0, Mode 63 2 0, Mode 63 2 2,
     Mode 63 2 0, Mode 63 2 0, Mode 63 2 0, Mode 63 2 0, Mode 63 2 0, Mode 63 2 0, Mode 63 2 0,
     Mode 63 2 0, Mode 63 2 0, Mode 63 2 0]"

text \<open>Lines 50199 to 50348.\<close>

definition ts_lex_modes_70 :: "TSLexerMode list" where
  "ts_lex_modes_70 =
    [Mode 63 2 0, Mode 63 2 0, Mode 63 2 0, Mode 63 2 0, Mode 63 2 0, Mode 63 2 0, Mode 63 2 0,
     Mode 63 2 0, Mode 63 2 0, Mode 63 2 0, Mode 63 2 0, Mode 63 2 0, Mode 63 2 0, Mode 63 2 0,
     Mode 63 2 0, Mode 63 2 0, Mode 63 2 0, Mode 63 2 0, Mode 63 2 0, Mode 63 2 0, Mode 63 2 0,
     Mode 63 2 0, Mode 63 2 0, Mode 63 2 0, Mode 63 2 0, Mode 63 2 0, Mode 63 2 0, Mode 63 2 0,
     Mode 63 2 0, Mode 63 2 0, Mode 63 2 0, Mode 63 2 0, Mode 63 2 0, Mode 63 2 0, Mode 63 2 0,
     Mode 63 2 0, Mode 63 2 0, Mode 63 2 0, Mode 63 2 0, Mode 63 2 0, Mode 63 2 0, Mode 63 2 0,
     Mode 0 2 0, Mode 63 2 0, Mode 63 2 0, Mode 63 2 0, Mode 63 2 0, Mode 63 2 0, Mode 63 2 0,
     Mode 63 2 0, Mode 63 2 0, Mode 63 2 0, Mode 63 2 0, Mode 63 2 0, Mode 63 2 0, Mode 63 2 0,
     Mode 63 2 0, Mode 63 2 0, Mode 63 2 0, Mode 63 2 0, Mode 63 2 0, Mode 63 2 0, Mode 63 2 0,
     Mode 63 2 0, Mode 63 2 0, Mode 63 2 0, Mode 63 2 0, Mode 63 2 0, Mode 63 2 0, Mode 63 2 0,
     Mode 63 2 0, Mode 63 2 0, Mode 63 2 0, Mode 63 2 0, Mode 63 2 0, Mode 63 2 0, Mode 63 2 0,
     Mode 63 2 0, Mode 63 2 0, Mode 63 2 0, Mode 63 2 0, Mode 63 2 0, Mode 63 2 0, Mode 63 2 0,
     Mode 63 2 0, Mode 63 2 0, Mode 0 2 0, Mode 63 2 0, Mode 63 2 0, Mode 63 2 0, Mode 219 2 0,
     Mode 63 2 0, Mode 0 2 0, Mode 0 2 0, Mode 63 2 0, Mode 63 2 0, Mode 63 2 2, Mode 63 2 0,
     Mode 63 2 0, Mode 63 2 2, Mode 63 2 0, Mode 63 2 0, Mode 63 2 0, Mode 63 2 0, Mode 63 2 0,
     Mode 63 2 0, Mode 63 2 0, Mode 63 2 0, Mode 63 2 0, Mode 63 2 0, Mode 63 2 0, Mode 63 2 0,
     Mode 63 2 2, Mode 0 2 0, Mode 63 2 2, Mode 63 2 0, Mode 63 2 0, Mode 63 2 2, Mode 63 2 0,
     Mode 63 2 0, Mode 219 2 0, Mode 63 2 0, Mode 63 2 2, Mode 63 2 0, Mode 63 2 2, Mode 63 2 0,
     Mode 63 2 0, Mode 63 2 2, Mode 63 2 0, Mode 63 2 0, Mode 63 2 2, Mode 63 2 0, Mode 63 2 0,
     Mode 63 2 2, Mode 63 2 2, Mode 63 2 0, Mode 63 2 0, Mode 63 2 0, Mode 63 2 0, Mode 63 2 0,
     Mode 63 2 2, Mode 63 2 0, Mode 63 2 0, Mode 63 2 0, Mode 63 2 0, Mode 63 2 0, Mode 63 2 0,
     Mode 219 2 0, Mode 63 2 0, Mode 63 2 0]"

text \<open>Lines 50349 to 50393.\<close>

definition ts_lex_modes_71 :: "TSLexerMode list" where
  "ts_lex_modes_71 =
    [Mode 63 2 2, Mode 63 2 0, Mode 63 2 0, Mode 63 2 0, Mode 63 2 0, Mode 63 2 2, Mode 63 2 0,
     Mode 63 2 0, Mode 63 2 2, Mode 219 2 0, Mode 63 2 0, Mode 63 2 2, Mode 63 2 0, Mode 63 2 0,
     Mode 63 2 0, Mode 63 2 2, Mode 63 2 0, Mode 63 2 2, Mode 63 2 0, Mode 63 2 0, Mode 63 2 2,
     Mode 63 2 0, Mode 63 2 0, Mode 63 2 0, Mode 63 2 0, Mode 63 2 0, Mode 63 2 2, Mode 63 2 0,
     Mode 63 2 0, Mode 63 2 0, Mode 0 2 0, Mode 63 2 0, Mode 63 2 0, Mode 63 2 0, Mode 63 2 0,
     Mode 63 2 0, Mode 63 2 0, Mode 63 2 0, Mode 63 2 0, Mode 63 2 0, Mode 63 2 0, Mode 63 2 0,
     Mode 63 2 0, Mode 63 2 0, Mode 63 2 0]"

definition ts_lex_modes :: "TSLexerMode list" where
  "ts_lex_modes =
     ts_lex_modes_1 @
     ts_lex_modes_2 @
     ts_lex_modes_3 @
     ts_lex_modes_4 @
     ts_lex_modes_5 @
     ts_lex_modes_6 @
     ts_lex_modes_7 @
     ts_lex_modes_8 @
     ts_lex_modes_9 @
     ts_lex_modes_10 @
     ts_lex_modes_11 @
     ts_lex_modes_12 @
     ts_lex_modes_13 @
     ts_lex_modes_14 @
     ts_lex_modes_15 @
     ts_lex_modes_16 @
     ts_lex_modes_17 @
     ts_lex_modes_18 @
     ts_lex_modes_19 @
     ts_lex_modes_20 @
     ts_lex_modes_21 @
     ts_lex_modes_22 @
     ts_lex_modes_23 @
     ts_lex_modes_24 @
     ts_lex_modes_25 @
     ts_lex_modes_26 @
     ts_lex_modes_27 @
     ts_lex_modes_28 @
     ts_lex_modes_29 @
     ts_lex_modes_30 @
     ts_lex_modes_31 @
     ts_lex_modes_32 @
     ts_lex_modes_33 @
     ts_lex_modes_34 @
     ts_lex_modes_35 @
     ts_lex_modes_36 @
     ts_lex_modes_37 @
     ts_lex_modes_38 @
     ts_lex_modes_39 @
     ts_lex_modes_40 @
     ts_lex_modes_41 @
     ts_lex_modes_42 @
     ts_lex_modes_43 @
     ts_lex_modes_44 @
     ts_lex_modes_45 @
     ts_lex_modes_46 @
     ts_lex_modes_47 @
     ts_lex_modes_48 @
     ts_lex_modes_49 @
     ts_lex_modes_50 @
     ts_lex_modes_51 @
     ts_lex_modes_52 @
     ts_lex_modes_53 @
     ts_lex_modes_54 @
     ts_lex_modes_55 @
     ts_lex_modes_56 @
     ts_lex_modes_57 @
     ts_lex_modes_58 @
     ts_lex_modes_59 @
     ts_lex_modes_60 @
     ts_lex_modes_61 @
     ts_lex_modes_62 @
     ts_lex_modes_63 @
     ts_lex_modes_64 @
     ts_lex_modes_65 @
     ts_lex_modes_66 @
     ts_lex_modes_67 @
     ts_lex_modes_68 @
     ts_lex_modes_69 @
     ts_lex_modes_70 @
     ts_lex_modes_71"

text \<open>
  What every mode keeps: one of 16 states of \<open>ts_lex\<close>, a row of the external scanner other than the
  empty one, a set of reserved words.
\<close>

definition used_lex_states :: "TSStateId list" where
  "used_lex_states = [0, 1, 2, 3, 4, 7, 8, 12, 13, 15, 18, 19, 20, 63, 218, 219]"

definition mode_ok :: "TSLexerMode \<Rightarrow> bool" where
  "mode_ok m \<longleftrightarrow>
     lex_state m \<in> set used_lex_states \<and> external_lex_state m \<in> {1, 2} \<and>
     reserved_word_set_id m < 48"

lemma lex_state_used:
  "0 \<in> set used_lex_states" "Suc 0 \<in> set used_lex_states" "2 \<in> set used_lex_states"
  "3 \<in> set used_lex_states" "4 \<in> set used_lex_states" "7 \<in> set used_lex_states"
  "8 \<in> set used_lex_states" "12 \<in> set used_lex_states" "13 \<in> set used_lex_states"
  "15 \<in> set used_lex_states" "18 \<in> set used_lex_states" "19 \<in> set used_lex_states"
  "20 \<in> set used_lex_states" "63 \<in> set used_lex_states" "218 \<in> set used_lex_states"
  "219 \<in> set used_lex_states"
  by (simp_all add: used_lex_states_def)

lemma row_used: "Suc 0 \<in> {1, 2 :: nat}" "2 \<in> {1, 2 :: nat}"
  by simp_all

lemma mode_ok_Mode [simp]:
  "mode_ok (Mode l e r) \<longleftrightarrow> l \<in> set used_lex_states \<and> e \<in> {1, 2} \<and> r < 48"
  by (simp add: mode_ok_def)

lemma ts_lex_modes_1_ok: "list_all mode_ok ts_lex_modes_1 \<and> length ts_lex_modes_1 = 150"
  unfolding ts_lex_modes_1_def by (simp add: lex_state_used cong: list_all_weak)

lemma ts_lex_modes_2_ok: "list_all mode_ok ts_lex_modes_2 \<and> length ts_lex_modes_2 = 150"
  unfolding ts_lex_modes_2_def by (simp add: lex_state_used cong: list_all_weak)

lemma ts_lex_modes_3_ok: "list_all mode_ok ts_lex_modes_3 \<and> length ts_lex_modes_3 = 150"
  unfolding ts_lex_modes_3_def by (simp add: lex_state_used cong: list_all_weak)

lemma ts_lex_modes_4_ok: "list_all mode_ok ts_lex_modes_4 \<and> length ts_lex_modes_4 = 150"
  unfolding ts_lex_modes_4_def by (simp add: lex_state_used cong: list_all_weak)

lemma ts_lex_modes_5_ok: "list_all mode_ok ts_lex_modes_5 \<and> length ts_lex_modes_5 = 150"
  unfolding ts_lex_modes_5_def by (simp add: lex_state_used cong: list_all_weak)

lemma ts_lex_modes_6_ok: "list_all mode_ok ts_lex_modes_6 \<and> length ts_lex_modes_6 = 150"
  unfolding ts_lex_modes_6_def by (simp add: lex_state_used cong: list_all_weak)

lemma ts_lex_modes_7_ok: "list_all mode_ok ts_lex_modes_7 \<and> length ts_lex_modes_7 = 150"
  unfolding ts_lex_modes_7_def by (simp add: lex_state_used cong: list_all_weak)

lemma ts_lex_modes_8_ok: "list_all mode_ok ts_lex_modes_8 \<and> length ts_lex_modes_8 = 150"
  unfolding ts_lex_modes_8_def by (simp add: lex_state_used cong: list_all_weak)

lemma ts_lex_modes_9_ok: "list_all mode_ok ts_lex_modes_9 \<and> length ts_lex_modes_9 = 150"
  unfolding ts_lex_modes_9_def by (simp add: lex_state_used cong: list_all_weak)

lemma ts_lex_modes_10_ok: "list_all mode_ok ts_lex_modes_10 \<and> length ts_lex_modes_10 = 150"
  unfolding ts_lex_modes_10_def by (simp add: lex_state_used cong: list_all_weak)

lemma ts_lex_modes_11_ok: "list_all mode_ok ts_lex_modes_11 \<and> length ts_lex_modes_11 = 150"
  unfolding ts_lex_modes_11_def by (simp add: lex_state_used cong: list_all_weak)

lemma ts_lex_modes_12_ok: "list_all mode_ok ts_lex_modes_12 \<and> length ts_lex_modes_12 = 150"
  unfolding ts_lex_modes_12_def by (simp add: lex_state_used cong: list_all_weak)

lemma ts_lex_modes_13_ok: "list_all mode_ok ts_lex_modes_13 \<and> length ts_lex_modes_13 = 150"
  unfolding ts_lex_modes_13_def by (simp add: lex_state_used cong: list_all_weak)

lemma ts_lex_modes_14_ok: "list_all mode_ok ts_lex_modes_14 \<and> length ts_lex_modes_14 = 150"
  unfolding ts_lex_modes_14_def by (simp add: lex_state_used cong: list_all_weak)

lemma ts_lex_modes_15_ok: "list_all mode_ok ts_lex_modes_15 \<and> length ts_lex_modes_15 = 150"
  unfolding ts_lex_modes_15_def by (simp add: lex_state_used cong: list_all_weak)

lemma ts_lex_modes_16_ok: "list_all mode_ok ts_lex_modes_16 \<and> length ts_lex_modes_16 = 150"
  unfolding ts_lex_modes_16_def by (simp add: lex_state_used cong: list_all_weak)

lemma ts_lex_modes_17_ok: "list_all mode_ok ts_lex_modes_17 \<and> length ts_lex_modes_17 = 150"
  unfolding ts_lex_modes_17_def by (simp add: lex_state_used cong: list_all_weak)

lemma ts_lex_modes_18_ok: "list_all mode_ok ts_lex_modes_18 \<and> length ts_lex_modes_18 = 150"
  unfolding ts_lex_modes_18_def by (simp add: lex_state_used cong: list_all_weak)

lemma ts_lex_modes_19_ok: "list_all mode_ok ts_lex_modes_19 \<and> length ts_lex_modes_19 = 150"
  unfolding ts_lex_modes_19_def by (simp add: lex_state_used cong: list_all_weak)

lemma ts_lex_modes_20_ok: "list_all mode_ok ts_lex_modes_20 \<and> length ts_lex_modes_20 = 150"
  unfolding ts_lex_modes_20_def by (simp add: lex_state_used cong: list_all_weak)

lemma ts_lex_modes_21_ok: "list_all mode_ok ts_lex_modes_21 \<and> length ts_lex_modes_21 = 150"
  unfolding ts_lex_modes_21_def by (simp add: lex_state_used cong: list_all_weak)

lemma ts_lex_modes_22_ok: "list_all mode_ok ts_lex_modes_22 \<and> length ts_lex_modes_22 = 150"
  unfolding ts_lex_modes_22_def by (simp add: lex_state_used cong: list_all_weak)

lemma ts_lex_modes_23_ok: "list_all mode_ok ts_lex_modes_23 \<and> length ts_lex_modes_23 = 150"
  unfolding ts_lex_modes_23_def by (simp add: lex_state_used cong: list_all_weak)

lemma ts_lex_modes_24_ok: "list_all mode_ok ts_lex_modes_24 \<and> length ts_lex_modes_24 = 150"
  unfolding ts_lex_modes_24_def by (simp add: lex_state_used cong: list_all_weak)

lemma ts_lex_modes_25_ok: "list_all mode_ok ts_lex_modes_25 \<and> length ts_lex_modes_25 = 150"
  unfolding ts_lex_modes_25_def by (simp add: lex_state_used cong: list_all_weak)

lemma ts_lex_modes_26_ok: "list_all mode_ok ts_lex_modes_26 \<and> length ts_lex_modes_26 = 150"
  unfolding ts_lex_modes_26_def by (simp add: lex_state_used cong: list_all_weak)

lemma ts_lex_modes_27_ok: "list_all mode_ok ts_lex_modes_27 \<and> length ts_lex_modes_27 = 150"
  unfolding ts_lex_modes_27_def by (simp add: lex_state_used cong: list_all_weak)

lemma ts_lex_modes_28_ok: "list_all mode_ok ts_lex_modes_28 \<and> length ts_lex_modes_28 = 150"
  unfolding ts_lex_modes_28_def by (simp add: lex_state_used cong: list_all_weak)

lemma ts_lex_modes_29_ok: "list_all mode_ok ts_lex_modes_29 \<and> length ts_lex_modes_29 = 150"
  unfolding ts_lex_modes_29_def by (simp add: lex_state_used cong: list_all_weak)

lemma ts_lex_modes_30_ok: "list_all mode_ok ts_lex_modes_30 \<and> length ts_lex_modes_30 = 150"
  unfolding ts_lex_modes_30_def by (simp add: lex_state_used cong: list_all_weak)

lemma ts_lex_modes_31_ok: "list_all mode_ok ts_lex_modes_31 \<and> length ts_lex_modes_31 = 150"
  unfolding ts_lex_modes_31_def by (simp add: lex_state_used cong: list_all_weak)

lemma ts_lex_modes_32_ok: "list_all mode_ok ts_lex_modes_32 \<and> length ts_lex_modes_32 = 150"
  unfolding ts_lex_modes_32_def by (simp add: lex_state_used cong: list_all_weak)

lemma ts_lex_modes_33_ok: "list_all mode_ok ts_lex_modes_33 \<and> length ts_lex_modes_33 = 150"
  unfolding ts_lex_modes_33_def by (simp add: lex_state_used cong: list_all_weak)

lemma ts_lex_modes_34_ok: "list_all mode_ok ts_lex_modes_34 \<and> length ts_lex_modes_34 = 150"
  unfolding ts_lex_modes_34_def by (simp add: lex_state_used cong: list_all_weak)

lemma ts_lex_modes_35_ok: "list_all mode_ok ts_lex_modes_35 \<and> length ts_lex_modes_35 = 150"
  unfolding ts_lex_modes_35_def by (simp add: lex_state_used cong: list_all_weak)

lemma ts_lex_modes_36_ok: "list_all mode_ok ts_lex_modes_36 \<and> length ts_lex_modes_36 = 150"
  unfolding ts_lex_modes_36_def by (simp add: lex_state_used cong: list_all_weak)

lemma ts_lex_modes_37_ok: "list_all mode_ok ts_lex_modes_37 \<and> length ts_lex_modes_37 = 150"
  unfolding ts_lex_modes_37_def by (simp add: lex_state_used cong: list_all_weak)

lemma ts_lex_modes_38_ok: "list_all mode_ok ts_lex_modes_38 \<and> length ts_lex_modes_38 = 150"
  unfolding ts_lex_modes_38_def by (simp add: lex_state_used cong: list_all_weak)

lemma ts_lex_modes_39_ok: "list_all mode_ok ts_lex_modes_39 \<and> length ts_lex_modes_39 = 150"
  unfolding ts_lex_modes_39_def by (simp add: lex_state_used cong: list_all_weak)

lemma ts_lex_modes_40_ok: "list_all mode_ok ts_lex_modes_40 \<and> length ts_lex_modes_40 = 150"
  unfolding ts_lex_modes_40_def by (simp add: lex_state_used cong: list_all_weak)

lemma ts_lex_modes_41_ok: "list_all mode_ok ts_lex_modes_41 \<and> length ts_lex_modes_41 = 150"
  unfolding ts_lex_modes_41_def by (simp add: lex_state_used cong: list_all_weak)

lemma ts_lex_modes_42_ok: "list_all mode_ok ts_lex_modes_42 \<and> length ts_lex_modes_42 = 150"
  unfolding ts_lex_modes_42_def by (simp add: lex_state_used cong: list_all_weak)

lemma ts_lex_modes_43_ok: "list_all mode_ok ts_lex_modes_43 \<and> length ts_lex_modes_43 = 150"
  unfolding ts_lex_modes_43_def by (simp add: lex_state_used cong: list_all_weak)

lemma ts_lex_modes_44_ok: "list_all mode_ok ts_lex_modes_44 \<and> length ts_lex_modes_44 = 150"
  unfolding ts_lex_modes_44_def by (simp add: lex_state_used cong: list_all_weak)

lemma ts_lex_modes_45_ok: "list_all mode_ok ts_lex_modes_45 \<and> length ts_lex_modes_45 = 150"
  unfolding ts_lex_modes_45_def by (simp add: lex_state_used cong: list_all_weak)

lemma ts_lex_modes_46_ok: "list_all mode_ok ts_lex_modes_46 \<and> length ts_lex_modes_46 = 150"
  unfolding ts_lex_modes_46_def by (simp add: lex_state_used cong: list_all_weak)

lemma ts_lex_modes_47_ok: "list_all mode_ok ts_lex_modes_47 \<and> length ts_lex_modes_47 = 150"
  unfolding ts_lex_modes_47_def by (simp add: lex_state_used cong: list_all_weak)

lemma ts_lex_modes_48_ok: "list_all mode_ok ts_lex_modes_48 \<and> length ts_lex_modes_48 = 150"
  unfolding ts_lex_modes_48_def by (simp add: lex_state_used cong: list_all_weak)

lemma ts_lex_modes_49_ok: "list_all mode_ok ts_lex_modes_49 \<and> length ts_lex_modes_49 = 150"
  unfolding ts_lex_modes_49_def by (simp add: lex_state_used cong: list_all_weak)

lemma ts_lex_modes_50_ok: "list_all mode_ok ts_lex_modes_50 \<and> length ts_lex_modes_50 = 150"
  unfolding ts_lex_modes_50_def by (simp add: lex_state_used cong: list_all_weak)

lemma ts_lex_modes_51_ok: "list_all mode_ok ts_lex_modes_51 \<and> length ts_lex_modes_51 = 150"
  unfolding ts_lex_modes_51_def by (simp add: lex_state_used cong: list_all_weak)

lemma ts_lex_modes_52_ok: "list_all mode_ok ts_lex_modes_52 \<and> length ts_lex_modes_52 = 150"
  unfolding ts_lex_modes_52_def by (simp add: lex_state_used cong: list_all_weak)

lemma ts_lex_modes_53_ok: "list_all mode_ok ts_lex_modes_53 \<and> length ts_lex_modes_53 = 150"
  unfolding ts_lex_modes_53_def by (simp add: lex_state_used cong: list_all_weak)

lemma ts_lex_modes_54_ok: "list_all mode_ok ts_lex_modes_54 \<and> length ts_lex_modes_54 = 150"
  unfolding ts_lex_modes_54_def by (simp add: lex_state_used cong: list_all_weak)

lemma ts_lex_modes_55_ok: "list_all mode_ok ts_lex_modes_55 \<and> length ts_lex_modes_55 = 150"
  unfolding ts_lex_modes_55_def by (simp add: lex_state_used cong: list_all_weak)

lemma ts_lex_modes_56_ok: "list_all mode_ok ts_lex_modes_56 \<and> length ts_lex_modes_56 = 150"
  unfolding ts_lex_modes_56_def by (simp add: lex_state_used cong: list_all_weak)

lemma ts_lex_modes_57_ok: "list_all mode_ok ts_lex_modes_57 \<and> length ts_lex_modes_57 = 150"
  unfolding ts_lex_modes_57_def by (simp add: lex_state_used cong: list_all_weak)

lemma ts_lex_modes_58_ok: "list_all mode_ok ts_lex_modes_58 \<and> length ts_lex_modes_58 = 150"
  unfolding ts_lex_modes_58_def by (simp add: lex_state_used cong: list_all_weak)

lemma ts_lex_modes_59_ok: "list_all mode_ok ts_lex_modes_59 \<and> length ts_lex_modes_59 = 150"
  unfolding ts_lex_modes_59_def by (simp add: lex_state_used cong: list_all_weak)

lemma ts_lex_modes_60_ok: "list_all mode_ok ts_lex_modes_60 \<and> length ts_lex_modes_60 = 150"
  unfolding ts_lex_modes_60_def by (simp add: lex_state_used cong: list_all_weak)

lemma ts_lex_modes_61_ok: "list_all mode_ok ts_lex_modes_61 \<and> length ts_lex_modes_61 = 150"
  unfolding ts_lex_modes_61_def by (simp add: lex_state_used cong: list_all_weak)

lemma ts_lex_modes_62_ok: "list_all mode_ok ts_lex_modes_62 \<and> length ts_lex_modes_62 = 150"
  unfolding ts_lex_modes_62_def by (simp add: lex_state_used cong: list_all_weak)

lemma ts_lex_modes_63_ok: "list_all mode_ok ts_lex_modes_63 \<and> length ts_lex_modes_63 = 150"
  unfolding ts_lex_modes_63_def by (simp add: lex_state_used cong: list_all_weak)

lemma ts_lex_modes_64_ok: "list_all mode_ok ts_lex_modes_64 \<and> length ts_lex_modes_64 = 150"
  unfolding ts_lex_modes_64_def by (simp add: lex_state_used cong: list_all_weak)

lemma ts_lex_modes_65_ok: "list_all mode_ok ts_lex_modes_65 \<and> length ts_lex_modes_65 = 150"
  unfolding ts_lex_modes_65_def by (simp add: lex_state_used cong: list_all_weak)

lemma ts_lex_modes_66_ok: "list_all mode_ok ts_lex_modes_66 \<and> length ts_lex_modes_66 = 150"
  unfolding ts_lex_modes_66_def by (simp add: lex_state_used cong: list_all_weak)

lemma ts_lex_modes_67_ok: "list_all mode_ok ts_lex_modes_67 \<and> length ts_lex_modes_67 = 150"
  unfolding ts_lex_modes_67_def by (simp add: lex_state_used cong: list_all_weak)

lemma ts_lex_modes_68_ok: "list_all mode_ok ts_lex_modes_68 \<and> length ts_lex_modes_68 = 150"
  unfolding ts_lex_modes_68_def by (simp add: lex_state_used cong: list_all_weak)

lemma ts_lex_modes_69_ok: "list_all mode_ok ts_lex_modes_69 \<and> length ts_lex_modes_69 = 150"
  unfolding ts_lex_modes_69_def by (simp add: lex_state_used cong: list_all_weak)

lemma ts_lex_modes_70_ok: "list_all mode_ok ts_lex_modes_70 \<and> length ts_lex_modes_70 = 150"
  unfolding ts_lex_modes_70_def by (simp add: lex_state_used cong: list_all_weak)

lemma ts_lex_modes_71_ok: "list_all mode_ok ts_lex_modes_71 \<and> length ts_lex_modes_71 = 45"
  unfolding ts_lex_modes_71_def by (simp add: lex_state_used cong: list_all_weak)

lemma ts_lex_modes_ok: "list_all mode_ok ts_lex_modes" "length ts_lex_modes = 10545"
  by (simp_all add: ts_lex_modes_def list_all_append
      ts_lex_modes_1_ok ts_lex_modes_2_ok ts_lex_modes_3_ok ts_lex_modes_4_ok ts_lex_modes_5_ok
      ts_lex_modes_6_ok ts_lex_modes_7_ok ts_lex_modes_8_ok ts_lex_modes_9_ok ts_lex_modes_10_ok
      ts_lex_modes_11_ok ts_lex_modes_12_ok ts_lex_modes_13_ok ts_lex_modes_14_ok
      ts_lex_modes_15_ok ts_lex_modes_16_ok ts_lex_modes_17_ok ts_lex_modes_18_ok
      ts_lex_modes_19_ok ts_lex_modes_20_ok ts_lex_modes_21_ok ts_lex_modes_22_ok
      ts_lex_modes_23_ok ts_lex_modes_24_ok ts_lex_modes_25_ok ts_lex_modes_26_ok
      ts_lex_modes_27_ok ts_lex_modes_28_ok ts_lex_modes_29_ok ts_lex_modes_30_ok
      ts_lex_modes_31_ok ts_lex_modes_32_ok ts_lex_modes_33_ok ts_lex_modes_34_ok
      ts_lex_modes_35_ok ts_lex_modes_36_ok ts_lex_modes_37_ok ts_lex_modes_38_ok
      ts_lex_modes_39_ok ts_lex_modes_40_ok ts_lex_modes_41_ok ts_lex_modes_42_ok
      ts_lex_modes_43_ok ts_lex_modes_44_ok ts_lex_modes_45_ok ts_lex_modes_46_ok
      ts_lex_modes_47_ok ts_lex_modes_48_ok ts_lex_modes_49_ok ts_lex_modes_50_ok
      ts_lex_modes_51_ok ts_lex_modes_52_ok ts_lex_modes_53_ok ts_lex_modes_54_ok
      ts_lex_modes_55_ok ts_lex_modes_56_ok ts_lex_modes_57_ok ts_lex_modes_58_ok
      ts_lex_modes_59_ok ts_lex_modes_60_ok ts_lex_modes_61_ok ts_lex_modes_62_ok
      ts_lex_modes_63_ok ts_lex_modes_64_ok ts_lex_modes_65_ok ts_lex_modes_66_ok
      ts_lex_modes_67_ok ts_lex_modes_68_ok ts_lex_modes_69_ok ts_lex_modes_70_ok
      ts_lex_modes_71_ok)

end
