(* ===== verification/Reserved_Words.thy ===== *)
theory Reserved_Words
  imports Symbols
begin

text \<open>
  \<open>ts_reserved_words\<close> of \<open>src/crates/tree-sitter/src/parser.c\<close>: 48 sets of at most 65 words that are
  no identifiers where the parser is. The first is empty; C fills the rest of each row with 0.
\<close>

text \<open>Lines 50397 to 50436.\<close>

definition ts_reserved_words_1 :: "TSSymbol list" where
  "ts_reserved_words_1 =
    [aux_sym_ERR_implements_before_extends_token1, aux_sym_ERR_extends_multiple_times_token1,
     aux_sym_ERR_doubled_qualifier_token1, aux_sym_ERR_doubled_qualifier_token2,
     aux_sym_data_type_decl_token1, aux_sym_data_type_decl_token2, aux_sym_array_type_spec_token2,
     aux_sym_struct_type_spec_token1, aux_sym_struct_type_spec_token3,
     aux_sym_relative_located_at_token1, aux_sym_ref_type_spec_token1, aux_sym_input_decls_token1,
     aux_sym_input_decls_token2, aux_sym_output_decls_token1, aux_sym_in_out_decls_token1,
     aux_sym_var_decls_token1, aux_sym_temp_var_decls_token1, aux_sym_external_var_decls_token1,
     aux_sym_global_var_decls_token1, aux_sym_func_decl_token1, aux_sym_fb_decl_token1,
     aux_sym_class_decl_token1, aux_sym_class_decl_token2, aux_sym_interface_decl_token1,
     aux_sym_interface_decl_token2, aux_sym_prog_decl_token1, aux_sym_transition_token4,
     aux_sym_config_decl_token1, aux_sym_config_decl_token2, aux_sym_resource_decl_token1,
     aux_sym_resource_decl_token3, aux_sym_namespace_decl_token1, aux_sym_namespace_decl_token2,
     aux_sym_using_directive_token1, aux_sym_if_stmt_token2, aux_sym_for_stmt_token2,
     aux_sym_for_list_token1, aux_sym_repeat_stmt_token3]"

text \<open>Lines 50437 to 50503.\<close>

definition ts_reserved_words_2 :: "TSSymbol list" where
  "ts_reserved_words_2 =
    [aux_sym_ERR_implements_before_extends_token1, aux_sym_ERR_extends_multiple_times_token1,
     aux_sym_ERR_doubled_qualifier_token1, aux_sym_ERR_doubled_qualifier_token2,
     aux_sym_data_type_decl_token1, aux_sym_data_type_decl_token2, aux_sym_array_type_spec_token2,
     aux_sym_struct_type_spec_token1, aux_sym_struct_type_spec_token3,
     aux_sym_relative_located_at_token1, anon_sym_PERCENT, aux_sym_ref_type_spec_token1,
     aux_sym_ref_addr_token1, aux_sym_input_decls_token1, aux_sym_input_decls_token2,
     aux_sym_output_decls_token1, aux_sym_in_out_decls_token1, aux_sym_var_decls_token1,
     aux_sym_temp_var_decls_token1, aux_sym_external_var_decls_token1,
     aux_sym_global_var_decls_token1, aux_sym_func_decl_token1, aux_sym_func_decl_token2,
     aux_sym_fb_decl_token1, aux_sym_fb_decl_token4, aux_sym_method_decl_token1,
     aux_sym_method_decl_token3, aux_sym_class_decl_token1, aux_sym_class_decl_token2,
     aux_sym_interface_decl_token1, aux_sym_interface_decl_token2, aux_sym_prog_decl_token1,
     aux_sym_prog_decl_token2, aux_sym_transition_token4, aux_sym_config_decl_token1,
     aux_sym_config_decl_token2, aux_sym_resource_decl_token1, aux_sym_resource_decl_token3,
     aux_sym_namespace_decl_token1, aux_sym_namespace_decl_token2, aux_sym_using_directive_token1,
     aux_sym__stmt_token1, aux_sym__stmt_token2, aux_sym_if_stmt_token1, aux_sym_if_stmt_token2,
     aux_sym_if_stmt_token3, aux_sym_if_stmt_token4, aux_sym_else_if_stmt_token1,
     aux_sym_case_stmt_token1, aux_sym_case_stmt_token2, aux_sym_for_stmt_token1,
     aux_sym_for_stmt_token2, aux_sym_for_stmt_token3, aux_sym_for_list_token1,
     aux_sym_while_stmt_token1, aux_sym_while_stmt_token2, aux_sym_repeat_stmt_token1,
     aux_sym_repeat_stmt_token2, aux_sym_repeat_stmt_token3, aux_sym_raise_stmt_token1,
     aux_sym_try_stmt_token1, aux_sym_try_stmt_token2, aux_sym_catch_clause_token1,
     aux_sym_finally_clause_token1, aux_sym_ERR_end_try_spelling_token1]"

text \<open>Lines 50504 to 50568.\<close>

definition ts_reserved_words_3 :: "TSSymbol list" where
  "ts_reserved_words_3 =
    [aux_sym_ERR_implements_before_extends_token1, aux_sym_ERR_extends_multiple_times_token1,
     aux_sym_ERR_doubled_qualifier_token1, aux_sym_ERR_doubled_qualifier_token2,
     aux_sym_data_type_decl_token1, aux_sym_data_type_decl_token2, aux_sym_array_type_spec_token2,
     aux_sym_struct_type_spec_token1, aux_sym_struct_type_spec_token3,
     aux_sym_relative_located_at_token1, aux_sym_ref_type_spec_token1, aux_sym_input_decls_token1,
     aux_sym_input_decls_token2, aux_sym_output_decls_token1, aux_sym_in_out_decls_token1,
     aux_sym_var_decls_token1, aux_sym_temp_var_decls_token1, aux_sym_external_var_decls_token1,
     aux_sym_global_var_decls_token1, aux_sym_func_decl_token1, aux_sym_func_decl_token2,
     aux_sym_fb_decl_token1, aux_sym_fb_decl_token4, aux_sym_method_decl_token1,
     aux_sym_method_decl_token3, aux_sym_class_decl_token1, aux_sym_class_decl_token2,
     aux_sym_interface_decl_token1, aux_sym_interface_decl_token2, aux_sym_prog_decl_token1,
     aux_sym_prog_decl_token2, aux_sym_transition_token4, aux_sym_config_decl_token1,
     aux_sym_config_decl_token2, aux_sym_resource_decl_token1, aux_sym_resource_decl_token3,
     aux_sym_namespace_decl_token1, aux_sym_namespace_decl_token2, aux_sym_using_directive_token1,
     aux_sym__stmt_token1, aux_sym__stmt_token2, aux_sym_if_stmt_token1, aux_sym_if_stmt_token2,
     aux_sym_if_stmt_token3, aux_sym_if_stmt_token4, aux_sym_else_if_stmt_token1,
     aux_sym_case_stmt_token1, aux_sym_case_stmt_token2, aux_sym_for_stmt_token1,
     aux_sym_for_stmt_token2, aux_sym_for_stmt_token3, aux_sym_for_list_token1,
     aux_sym_while_stmt_token1, aux_sym_while_stmt_token2, aux_sym_repeat_stmt_token1,
     aux_sym_repeat_stmt_token2, aux_sym_repeat_stmt_token3, aux_sym_raise_stmt_token1,
     aux_sym_try_stmt_token1, aux_sym_try_stmt_token2, aux_sym_catch_clause_token1,
     aux_sym_finally_clause_token1, aux_sym_ERR_end_try_spelling_token1]"

text \<open>Lines 50569 to 50631.\<close>

definition ts_reserved_words_4 :: "TSSymbol list" where
  "ts_reserved_words_4 =
    [aux_sym_ERR_implements_before_extends_token1, aux_sym_ERR_extends_multiple_times_token1,
     aux_sym_ERR_doubled_qualifier_token1, aux_sym_ERR_doubled_qualifier_token2,
     aux_sym_data_type_decl_token1, aux_sym_data_type_decl_token2, aux_sym_array_type_spec_token2,
     aux_sym_struct_type_spec_token1, aux_sym_struct_type_spec_token3,
     aux_sym_relative_located_at_token1, aux_sym_ref_type_spec_token1, aux_sym_input_decls_token1,
     aux_sym_input_decls_token2, aux_sym_output_decls_token1, aux_sym_in_out_decls_token1,
     aux_sym_var_decls_token1, aux_sym_temp_var_decls_token1, aux_sym_external_var_decls_token1,
     aux_sym_global_var_decls_token1, aux_sym_func_decl_token1, aux_sym_func_decl_token2,
     aux_sym_fb_decl_token1, aux_sym_fb_decl_token4, aux_sym_method_decl_token1,
     aux_sym_method_decl_token3, aux_sym_class_decl_token1, aux_sym_class_decl_token2,
     aux_sym_interface_decl_token1, aux_sym_interface_decl_token2, aux_sym_prog_decl_token1,
     aux_sym_prog_decl_token2, aux_sym_transition_token4, aux_sym_config_decl_token1,
     aux_sym_config_decl_token2, aux_sym_resource_decl_token1, aux_sym_resource_decl_token3,
     aux_sym_namespace_decl_token1, aux_sym_namespace_decl_token2, aux_sym_using_directive_token1,
     aux_sym__stmt_token1, aux_sym__stmt_token2, aux_sym_if_stmt_token1, aux_sym_if_stmt_token2,
     aux_sym_if_stmt_token4, aux_sym_else_if_stmt_token1, aux_sym_case_stmt_token1,
     aux_sym_for_stmt_token1, aux_sym_for_stmt_token2, aux_sym_for_stmt_token3,
     aux_sym_for_list_token1, aux_sym_while_stmt_token1, aux_sym_while_stmt_token2,
     aux_sym_repeat_stmt_token1, aux_sym_repeat_stmt_token2, aux_sym_repeat_stmt_token3,
     aux_sym_raise_stmt_token1, aux_sym_try_stmt_token1, aux_sym_try_stmt_token2,
     aux_sym_catch_clause_token1, aux_sym_finally_clause_token1, aux_sym_ERR_end_try_spelling_token1]"

text \<open>Lines 50632 to 50673.\<close>

definition ts_reserved_words_5 :: "TSSymbol list" where
  "ts_reserved_words_5 =
    [aux_sym_ERR_doubled_qualifier_token1, aux_sym_ERR_doubled_qualifier_token2,
     aux_sym_data_type_decl_token1, aux_sym_data_type_decl_token2, aux_sym_array_type_spec_token2,
     aux_sym_struct_type_spec_token1, aux_sym_struct_type_spec_token3,
     aux_sym_relative_located_at_token1, aux_sym_ref_type_spec_token1, aux_sym_ref_addr_token1,
     aux_sym_input_decls_token2, aux_sym_func_decl_token1, aux_sym_func_decl_token2,
     aux_sym_fb_decl_token1, aux_sym_method_decl_token3, aux_sym_class_decl_token1,
     aux_sym_class_decl_token2, aux_sym_interface_decl_token1, aux_sym_interface_decl_token2,
     aux_sym_prog_decl_token1, aux_sym_prog_decl_token2, aux_sym_transition_token4,
     aux_sym_config_decl_token1, aux_sym_config_decl_token2, aux_sym_resource_decl_token1,
     aux_sym_resource_decl_token3, aux_sym_namespace_decl_token1, aux_sym_namespace_decl_token2,
     aux_sym_if_stmt_token2, aux_sym_if_stmt_token3, aux_sym_if_stmt_token4,
     aux_sym_else_if_stmt_token1, aux_sym_case_stmt_token2, aux_sym_for_stmt_token2,
     aux_sym_for_stmt_token3, aux_sym_for_list_token1, aux_sym_while_stmt_token2,
     aux_sym_repeat_stmt_token2, aux_sym_repeat_stmt_token3, aux_sym_ERR_end_try_spelling_token1]"

text \<open>Lines 50674 to 50716.\<close>

definition ts_reserved_words_6 :: "TSSymbol list" where
  "ts_reserved_words_6 =
    [aux_sym_ERR_extends_multiple_times_token1, aux_sym_ERR_doubled_qualifier_token1,
     aux_sym_ERR_doubled_qualifier_token2, aux_sym_data_type_decl_token1,
     aux_sym_data_type_decl_token2, aux_sym_array_type_spec_token2, aux_sym_struct_type_spec_token1,
     aux_sym_struct_type_spec_token3, aux_sym_relative_located_at_token1,
     aux_sym_ref_type_spec_token1, aux_sym_ref_addr_token1, aux_sym_input_decls_token2,
     aux_sym_func_decl_token1, aux_sym_func_decl_token2, aux_sym_fb_decl_token1,
     aux_sym_method_decl_token3, aux_sym_class_decl_token1, aux_sym_class_decl_token2,
     aux_sym_interface_decl_token1, aux_sym_interface_decl_token2, aux_sym_prog_decl_token1,
     aux_sym_prog_decl_token2, aux_sym_transition_token4, aux_sym_config_decl_token1,
     aux_sym_config_decl_token2, aux_sym_resource_decl_token1, aux_sym_resource_decl_token3,
     aux_sym_namespace_decl_token1, aux_sym_namespace_decl_token2, aux_sym_if_stmt_token2,
     aux_sym_if_stmt_token3, aux_sym_if_stmt_token4, aux_sym_else_if_stmt_token1,
     aux_sym_case_stmt_token2, aux_sym_for_stmt_token2, aux_sym_for_stmt_token3,
     aux_sym_for_list_token1, aux_sym_while_stmt_token2, aux_sym_repeat_stmt_token2,
     aux_sym_repeat_stmt_token3, aux_sym_ERR_end_try_spelling_token1]"

text \<open>Lines 50717 to 50760.\<close>

definition ts_reserved_words_7 :: "TSSymbol list" where
  "ts_reserved_words_7 =
    [aux_sym_ERR_implements_before_extends_token1, aux_sym_ERR_extends_multiple_times_token1,
     aux_sym_ERR_doubled_qualifier_token1, aux_sym_ERR_doubled_qualifier_token2,
     aux_sym_data_type_decl_token1, aux_sym_data_type_decl_token2, aux_sym_array_type_spec_token2,
     aux_sym_struct_type_spec_token1, aux_sym_struct_type_spec_token3,
     aux_sym_relative_located_at_token1, aux_sym_ref_type_spec_token1, aux_sym_ref_addr_token1,
     aux_sym_input_decls_token2, aux_sym_func_decl_token1, aux_sym_func_decl_token2,
     aux_sym_fb_decl_token1, aux_sym_method_decl_token3, aux_sym_class_decl_token1,
     aux_sym_class_decl_token2, aux_sym_interface_decl_token1, aux_sym_interface_decl_token2,
     aux_sym_prog_decl_token1, aux_sym_prog_decl_token2, aux_sym_transition_token4,
     aux_sym_config_decl_token1, aux_sym_config_decl_token2, aux_sym_resource_decl_token1,
     aux_sym_resource_decl_token3, aux_sym_namespace_decl_token1, aux_sym_namespace_decl_token2,
     aux_sym_if_stmt_token2, aux_sym_if_stmt_token3, aux_sym_if_stmt_token4,
     aux_sym_else_if_stmt_token1, aux_sym_case_stmt_token2, aux_sym_for_stmt_token2,
     aux_sym_for_stmt_token3, aux_sym_for_list_token1, aux_sym_while_stmt_token2,
     aux_sym_repeat_stmt_token2, aux_sym_repeat_stmt_token3, aux_sym_ERR_end_try_spelling_token1]"

text \<open>Lines 50761 to 50805.\<close>

definition ts_reserved_words_8 :: "TSSymbol list" where
  "ts_reserved_words_8 =
    [aux_sym_ERR_implements_before_extends_token1, aux_sym_ERR_extends_multiple_times_token1,
     aux_sym_ERR_doubled_qualifier_token1, aux_sym_ERR_doubled_qualifier_token2,
     aux_sym_data_type_decl_token1, aux_sym_data_type_decl_token2, aux_sym_array_type_spec_token2,
     aux_sym_struct_type_spec_token1, aux_sym_struct_type_spec_token3,
     aux_sym_relative_located_at_token1, aux_sym_ref_type_spec_token1, aux_sym_ref_addr_token1,
     aux_sym_input_decls_token2, aux_sym_func_decl_token1, aux_sym_func_decl_token2,
     aux_sym_fb_decl_token1, aux_sym_method_decl_token3, aux_sym_class_decl_token1,
     aux_sym_class_decl_token2, aux_sym_interface_decl_token1, aux_sym_interface_decl_token2,
     aux_sym_prog_decl_token1, aux_sym_prog_decl_token2, aux_sym_transition_token4,
     aux_sym_config_decl_token1, aux_sym_config_decl_token2, aux_sym_resource_decl_token1,
     aux_sym_resource_decl_token3, aux_sym_namespace_decl_token1, aux_sym_namespace_decl_token2,
     aux_sym_using_directive_token1, aux_sym_if_stmt_token2, aux_sym_if_stmt_token3,
     aux_sym_if_stmt_token4, aux_sym_else_if_stmt_token1, aux_sym_case_stmt_token2,
     aux_sym_for_stmt_token2, aux_sym_for_stmt_token3, aux_sym_for_list_token1,
     aux_sym_while_stmt_token2, aux_sym_repeat_stmt_token2, aux_sym_repeat_stmt_token3,
     aux_sym_ERR_end_try_spelling_token1]"

text \<open>Lines 50806 to 50849.\<close>

definition ts_reserved_words_9 :: "TSSymbol list" where
  "ts_reserved_words_9 =
    [aux_sym_ERR_implements_before_extends_token1, aux_sym_ERR_extends_multiple_times_token1,
     aux_sym_ERR_doubled_qualifier_token1, aux_sym_ERR_doubled_qualifier_token2,
     aux_sym_data_type_decl_token1, aux_sym_data_type_decl_token2, aux_sym_array_type_spec_token2,
     aux_sym_struct_type_spec_token1, aux_sym_struct_type_spec_token3,
     aux_sym_relative_located_at_token1, aux_sym_ref_type_spec_token1, aux_sym_ref_addr_token1,
     aux_sym_input_decls_token2, aux_sym_func_decl_token1, aux_sym_fb_decl_token1,
     aux_sym_fb_decl_token4, aux_sym_method_decl_token3, aux_sym_class_decl_token1,
     aux_sym_class_decl_token2, aux_sym_interface_decl_token1, aux_sym_interface_decl_token2,
     aux_sym_prog_decl_token1, aux_sym_prog_decl_token2, aux_sym_transition_token4,
     aux_sym_config_decl_token1, aux_sym_config_decl_token2, aux_sym_resource_decl_token1,
     aux_sym_resource_decl_token3, aux_sym_namespace_decl_token1, aux_sym_namespace_decl_token2,
     aux_sym_if_stmt_token2, aux_sym_if_stmt_token3, aux_sym_if_stmt_token4,
     aux_sym_else_if_stmt_token1, aux_sym_case_stmt_token2, aux_sym_for_stmt_token2,
     aux_sym_for_stmt_token3, aux_sym_for_list_token1, aux_sym_while_stmt_token2,
     aux_sym_repeat_stmt_token2, aux_sym_repeat_stmt_token3, aux_sym_ERR_end_try_spelling_token1]"

text \<open>Lines 50850 to 50894.\<close>

definition ts_reserved_words_10 :: "TSSymbol list" where
  "ts_reserved_words_10 =
    [aux_sym_ERR_implements_before_extends_token1, aux_sym_ERR_extends_multiple_times_token1,
     aux_sym_ERR_doubled_qualifier_token1, aux_sym_ERR_doubled_qualifier_token2,
     aux_sym_data_type_decl_token1, aux_sym_data_type_decl_token2, aux_sym_array_type_spec_token2,
     aux_sym_struct_type_spec_token1, aux_sym_struct_type_spec_token3,
     aux_sym_relative_located_at_token1, aux_sym_ref_type_spec_token1, aux_sym_ref_addr_token1,
     aux_sym_input_decls_token2, aux_sym_func_decl_token1, aux_sym_func_decl_token2,
     aux_sym_fb_decl_token1, aux_sym_fb_decl_token4, aux_sym_method_decl_token3,
     aux_sym_class_decl_token1, aux_sym_class_decl_token2, aux_sym_interface_decl_token1,
     aux_sym_interface_decl_token2, aux_sym_prog_decl_token1, aux_sym_transition_token4,
     aux_sym_config_decl_token1, aux_sym_config_decl_token2, aux_sym_resource_decl_token1,
     aux_sym_resource_decl_token3, aux_sym_namespace_decl_token1, aux_sym_namespace_decl_token2,
     aux_sym_using_directive_token1, aux_sym_if_stmt_token2, aux_sym_if_stmt_token3,
     aux_sym_if_stmt_token4, aux_sym_else_if_stmt_token1, aux_sym_case_stmt_token2,
     aux_sym_for_stmt_token2, aux_sym_for_stmt_token3, aux_sym_for_list_token1,
     aux_sym_while_stmt_token2, aux_sym_repeat_stmt_token2, aux_sym_repeat_stmt_token3,
     aux_sym_ERR_end_try_spelling_token1]"

text \<open>Lines 50895 to 50939.\<close>

definition ts_reserved_words_11 :: "TSSymbol list" where
  "ts_reserved_words_11 =
    [aux_sym_ERR_implements_before_extends_token1, aux_sym_ERR_extends_multiple_times_token1,
     aux_sym_ERR_doubled_qualifier_token1, aux_sym_ERR_doubled_qualifier_token2,
     aux_sym_data_type_decl_token1, aux_sym_data_type_decl_token2, aux_sym_array_type_spec_token2,
     aux_sym_struct_type_spec_token1, aux_sym_struct_type_spec_token3,
     aux_sym_relative_located_at_token1, aux_sym_ref_type_spec_token1, aux_sym_ref_addr_token1,
     aux_sym_input_decls_token2, aux_sym_func_decl_token1, aux_sym_func_decl_token2,
     aux_sym_fb_decl_token1, aux_sym_fb_decl_token4, aux_sym_class_decl_token1,
     aux_sym_class_decl_token2, aux_sym_interface_decl_token1, aux_sym_interface_decl_token2,
     aux_sym_prog_decl_token1, aux_sym_prog_decl_token2, aux_sym_transition_token4,
     aux_sym_config_decl_token1, aux_sym_config_decl_token2, aux_sym_resource_decl_token1,
     aux_sym_resource_decl_token3, aux_sym_namespace_decl_token1, aux_sym_namespace_decl_token2,
     aux_sym_using_directive_token1, aux_sym_if_stmt_token2, aux_sym_if_stmt_token3,
     aux_sym_if_stmt_token4, aux_sym_else_if_stmt_token1, aux_sym_case_stmt_token2,
     aux_sym_for_stmt_token2, aux_sym_for_stmt_token3, aux_sym_for_list_token1,
     aux_sym_while_stmt_token2, aux_sym_repeat_stmt_token2, aux_sym_repeat_stmt_token3,
     aux_sym_ERR_end_try_spelling_token1]"

text \<open>Lines 50940 to 50984.\<close>

definition ts_reserved_words_12 :: "TSSymbol list" where
  "ts_reserved_words_12 =
    [aux_sym_ERR_implements_before_extends_token1, aux_sym_ERR_extends_multiple_times_token1,
     aux_sym_ERR_doubled_qualifier_token1, aux_sym_ERR_doubled_qualifier_token2,
     aux_sym_data_type_decl_token1, aux_sym_data_type_decl_token2, aux_sym_array_type_spec_token2,
     aux_sym_struct_type_spec_token1, aux_sym_struct_type_spec_token3,
     aux_sym_relative_located_at_token1, aux_sym_ref_type_spec_token1, aux_sym_ref_addr_token1,
     aux_sym_input_decls_token2, aux_sym_func_decl_token1, aux_sym_fb_decl_token1,
     aux_sym_fb_decl_token4, aux_sym_method_decl_token3, aux_sym_class_decl_token1,
     aux_sym_class_decl_token2, aux_sym_interface_decl_token1, aux_sym_interface_decl_token2,
     aux_sym_prog_decl_token1, aux_sym_prog_decl_token2, aux_sym_transition_token4,
     aux_sym_config_decl_token1, aux_sym_config_decl_token2, aux_sym_resource_decl_token1,
     aux_sym_resource_decl_token3, aux_sym_namespace_decl_token1, aux_sym_namespace_decl_token2,
     aux_sym_using_directive_token1, aux_sym_if_stmt_token2, aux_sym_if_stmt_token3,
     aux_sym_if_stmt_token4, aux_sym_else_if_stmt_token1, aux_sym_case_stmt_token2,
     aux_sym_for_stmt_token2, aux_sym_for_stmt_token3, aux_sym_for_list_token1,
     aux_sym_while_stmt_token2, aux_sym_repeat_stmt_token2, aux_sym_repeat_stmt_token3,
     aux_sym_ERR_end_try_spelling_token1]"

text \<open>Lines 50985 to 51050.\<close>

definition ts_reserved_words_13 :: "TSSymbol list" where
  "ts_reserved_words_13 =
    [aux_sym_ERR_implements_before_extends_token1, aux_sym_ERR_extends_multiple_times_token1,
     aux_sym_ERR_doubled_qualifier_token1, aux_sym_ERR_doubled_qualifier_token2,
     aux_sym_data_type_decl_token1, aux_sym_data_type_decl_token2, aux_sym_array_type_spec_token2,
     aux_sym_struct_type_spec_token1, aux_sym_struct_type_spec_token3,
     aux_sym_relative_located_at_token1, aux_sym_ref_type_spec_token1, aux_sym_ref_addr_token1,
     aux_sym_input_decls_token1, aux_sym_input_decls_token2, aux_sym_output_decls_token1,
     aux_sym_in_out_decls_token1, aux_sym_var_decls_token1, aux_sym_temp_var_decls_token1,
     aux_sym_external_var_decls_token1, aux_sym_global_var_decls_token1, aux_sym_func_decl_token1,
     aux_sym_func_decl_token2, aux_sym_fb_decl_token1, aux_sym_fb_decl_token4,
     aux_sym_method_decl_token1, aux_sym_method_decl_token3, aux_sym_class_decl_token1,
     aux_sym_class_decl_token2, aux_sym_interface_decl_token1, aux_sym_interface_decl_token2,
     aux_sym_prog_decl_token1, aux_sym_prog_decl_token2, aux_sym_transition_token4,
     aux_sym_config_decl_token1, aux_sym_config_decl_token2, aux_sym_resource_decl_token1,
     aux_sym_resource_decl_token3, aux_sym_namespace_decl_token1, aux_sym_namespace_decl_token2,
     aux_sym_using_directive_token1, aux_sym__stmt_token1, aux_sym__stmt_token2,
     aux_sym_if_stmt_token1, aux_sym_if_stmt_token2, aux_sym_if_stmt_token3, aux_sym_if_stmt_token4,
     aux_sym_else_if_stmt_token1, aux_sym_case_stmt_token1, aux_sym_case_stmt_token2,
     aux_sym_for_stmt_token1, aux_sym_for_stmt_token2, aux_sym_for_stmt_token3,
     aux_sym_for_list_token1, aux_sym_while_stmt_token1, aux_sym_while_stmt_token2,
     aux_sym_repeat_stmt_token1, aux_sym_repeat_stmt_token2, aux_sym_repeat_stmt_token3,
     aux_sym_raise_stmt_token1, aux_sym_try_stmt_token1, aux_sym_try_stmt_token2,
     aux_sym_catch_clause_token1, aux_sym_finally_clause_token1, aux_sym_ERR_end_try_spelling_token1]"

text \<open>Lines 51051 to 51102.\<close>

definition ts_reserved_words_14 :: "TSSymbol list" where
  "ts_reserved_words_14 =
    [aux_sym_ERR_implements_before_extends_token1, aux_sym_ERR_extends_multiple_times_token1,
     aux_sym_ERR_doubled_qualifier_token1, aux_sym_ERR_doubled_qualifier_token2,
     aux_sym_data_type_decl_token1, aux_sym_data_type_decl_token2, aux_sym_array_type_spec_token2,
     aux_sym_struct_type_spec_token1, aux_sym_struct_type_spec_token3,
     aux_sym_relative_located_at_token1, aux_sym_ref_type_spec_token1, aux_sym_ref_addr_token1,
     aux_sym_input_decls_token1, aux_sym_input_decls_token2, aux_sym_output_decls_token1,
     aux_sym_in_out_decls_token1, aux_sym_var_decls_token1, aux_sym_temp_var_decls_token1,
     aux_sym_external_var_decls_token1, aux_sym_global_var_decls_token1, aux_sym_func_decl_token1,
     aux_sym_func_decl_token2, aux_sym_fb_decl_token1, aux_sym_method_decl_token3,
     aux_sym_class_decl_token1, aux_sym_class_decl_token2, aux_sym_interface_decl_token1,
     aux_sym_interface_decl_token2, aux_sym_prog_decl_token1, aux_sym_prog_decl_token2,
     aux_sym_transition_token4, aux_sym_config_decl_token1, aux_sym_config_decl_token2,
     aux_sym_resource_decl_token1, aux_sym_resource_decl_token3, aux_sym_namespace_decl_token1,
     aux_sym_namespace_decl_token2, aux_sym_using_directive_token1, aux_sym_if_stmt_token2,
     aux_sym_if_stmt_token3, aux_sym_if_stmt_token4, aux_sym_else_if_stmt_token1,
     aux_sym_case_stmt_token2, aux_sym_for_stmt_token2, aux_sym_for_stmt_token3,
     aux_sym_for_list_token1, aux_sym_while_stmt_token2, aux_sym_repeat_stmt_token2,
     aux_sym_repeat_stmt_token3, aux_sym_ERR_end_try_spelling_token1]"

text \<open>Lines 51103 to 51131.\<close>

definition ts_reserved_words_15 :: "TSSymbol list" where
  "ts_reserved_words_15 =
    [aux_sym_ERR_implements_before_extends_token1, aux_sym_ERR_extends_multiple_times_token1,
     aux_sym_data_type_decl_token1, aux_sym_struct_type_spec_token1, aux_sym_ref_type_spec_token1,
     aux_sym_ref_addr_token1, aux_sym_input_decls_token1, aux_sym_output_decls_token1,
     aux_sym_in_out_decls_token1, aux_sym_var_decls_token1, aux_sym_temp_var_decls_token1,
     aux_sym_external_var_decls_token1, aux_sym_global_var_decls_token1, aux_sym_func_decl_token1,
     aux_sym_fb_decl_token1, aux_sym_class_decl_token1, aux_sym_class_decl_token2,
     aux_sym_interface_decl_token1, aux_sym_interface_decl_token2, aux_sym_prog_decl_token1,
     aux_sym_config_decl_token1, aux_sym_config_decl_token2, aux_sym_resource_decl_token1,
     aux_sym_resource_decl_token3, aux_sym_namespace_decl_token1, aux_sym_namespace_decl_token2,
     aux_sym_using_directive_token1]"

text \<open>Lines 51132 to 51184.\<close>

definition ts_reserved_words_16 :: "TSSymbol list" where
  "ts_reserved_words_16 =
    [aux_sym_ERR_implements_before_extends_token1, aux_sym_ERR_extends_multiple_times_token1,
     aux_sym_ERR_doubled_qualifier_token1, aux_sym_ERR_doubled_qualifier_token2,
     aux_sym_data_type_decl_token1, aux_sym_data_type_decl_token2, aux_sym_array_type_spec_token2,
     aux_sym_struct_type_spec_token1, aux_sym_struct_type_spec_token3,
     aux_sym_relative_located_at_token1, aux_sym_ref_type_spec_token1, aux_sym_ref_addr_token1,
     aux_sym_input_decls_token1, aux_sym_input_decls_token2, aux_sym_output_decls_token1,
     aux_sym_in_out_decls_token1, aux_sym_var_decls_token1, aux_sym_temp_var_decls_token1,
     aux_sym_external_var_decls_token1, aux_sym_global_var_decls_token1, aux_sym_func_decl_token1,
     aux_sym_func_decl_token2, aux_sym_fb_decl_token1, aux_sym_fb_decl_token4,
     aux_sym_method_decl_token3, aux_sym_class_decl_token1, aux_sym_class_decl_token2,
     aux_sym_interface_decl_token1, aux_sym_interface_decl_token2, aux_sym_prog_decl_token1,
     aux_sym_prog_decl_token2, aux_sym_transition_token4, aux_sym_config_decl_token1,
     aux_sym_config_decl_token2, aux_sym_resource_decl_token1, aux_sym_resource_decl_token3,
     aux_sym_namespace_decl_token1, aux_sym_namespace_decl_token2, aux_sym_using_directive_token1,
     aux_sym_if_stmt_token2, aux_sym_if_stmt_token3, aux_sym_if_stmt_token4,
     aux_sym_else_if_stmt_token1, aux_sym_case_stmt_token2, aux_sym_for_stmt_token2,
     aux_sym_for_stmt_token3, aux_sym_for_list_token1, aux_sym_while_stmt_token2,
     aux_sym_repeat_stmt_token2, aux_sym_repeat_stmt_token3, aux_sym_ERR_end_try_spelling_token1]"

text \<open>Lines 51185 to 51226.\<close>

definition ts_reserved_words_17 :: "TSSymbol list" where
  "ts_reserved_words_17 =
    [aux_sym_ERR_implements_before_extends_token1, aux_sym_ERR_extends_multiple_times_token1,
     aux_sym_ERR_doubled_qualifier_token1, aux_sym_ERR_doubled_qualifier_token2,
     aux_sym_data_type_decl_token1, aux_sym_data_type_decl_token2, aux_sym_array_type_spec_token2,
     aux_sym_struct_type_spec_token1, aux_sym_struct_type_spec_token3,
     aux_sym_relative_located_at_token1, aux_sym_ref_type_spec_token1, aux_sym_ref_addr_token1,
     aux_sym_input_decls_token1, aux_sym_input_decls_token2, aux_sym_output_decls_token1,
     aux_sym_in_out_decls_token1, aux_sym_var_decls_token1, aux_sym_temp_var_decls_token1,
     aux_sym_external_var_decls_token1, aux_sym_global_var_decls_token1, aux_sym_func_decl_token1,
     aux_sym_fb_decl_token1, aux_sym_class_decl_token1, aux_sym_class_decl_token2,
     aux_sym_interface_decl_token1, aux_sym_interface_decl_token2, aux_sym_prog_decl_token1,
     aux_sym_transition_token4, aux_sym_config_decl_token1, aux_sym_config_decl_token2,
     aux_sym_resource_decl_token1, aux_sym_resource_decl_token3, aux_sym_namespace_decl_token1,
     aux_sym_namespace_decl_token2, aux_sym_using_directive_token1, aux_sym_if_stmt_token2,
     aux_sym_for_stmt_token2, aux_sym_for_list_token1, aux_sym_repeat_stmt_token3,
     aux_sym_ERR_end_try_spelling_token1]"

text \<open>Lines 51227 to 51276.\<close>

definition ts_reserved_words_18 :: "TSSymbol list" where
  "ts_reserved_words_18 =
    [aux_sym_ERR_implements_before_extends_token1, aux_sym_ERR_extends_multiple_times_token1,
     aux_sym_ERR_doubled_qualifier_token1, aux_sym_ERR_doubled_qualifier_token2,
     aux_sym_data_type_decl_token1, aux_sym_data_type_decl_token2, aux_sym_array_type_spec_token2,
     aux_sym_struct_type_spec_token1, aux_sym_struct_type_spec_token3,
     aux_sym_relative_located_at_token1, aux_sym_ref_type_spec_token1, aux_sym_ref_addr_token1,
     aux_sym_input_decls_token1, aux_sym_input_decls_token2, aux_sym_output_decls_token1,
     aux_sym_in_out_decls_token1, aux_sym_var_decls_token1, aux_sym_temp_var_decls_token1,
     aux_sym_external_var_decls_token1, aux_sym_global_var_decls_token1, aux_sym_func_decl_token1,
     aux_sym_func_decl_token2, aux_sym_fb_decl_token1, aux_sym_fb_decl_token4,
     aux_sym_method_decl_token3, aux_sym_class_decl_token1, aux_sym_class_decl_token2,
     aux_sym_interface_decl_token1, aux_sym_interface_decl_token2, aux_sym_prog_decl_token1,
     aux_sym_prog_decl_token2, aux_sym_transition_token4, aux_sym_config_decl_token1,
     aux_sym_config_decl_token2, aux_sym_resource_decl_token1, aux_sym_resource_decl_token3,
     aux_sym_namespace_decl_token1, aux_sym_namespace_decl_token2, aux_sym_using_directive_token1,
     aux_sym_if_stmt_token2, aux_sym_case_stmt_token2, aux_sym_for_stmt_token2,
     aux_sym_for_stmt_token3, aux_sym_for_list_token1, aux_sym_while_stmt_token2,
     aux_sym_repeat_stmt_token2, aux_sym_repeat_stmt_token3, aux_sym_ERR_end_try_spelling_token1]"

text \<open>Lines 51277 to 51328.\<close>

definition ts_reserved_words_19 :: "TSSymbol list" where
  "ts_reserved_words_19 =
    [aux_sym_ERR_implements_before_extends_token1, aux_sym_ERR_extends_multiple_times_token1,
     aux_sym_ERR_doubled_qualifier_token1, aux_sym_ERR_doubled_qualifier_token2,
     aux_sym_data_type_decl_token1, aux_sym_data_type_decl_token2, aux_sym_array_type_spec_token2,
     aux_sym_struct_type_spec_token1, aux_sym_struct_type_spec_token3,
     aux_sym_relative_located_at_token1, aux_sym_ref_type_spec_token1, aux_sym_ref_addr_token1,
     aux_sym_input_decls_token1, aux_sym_input_decls_token2, aux_sym_output_decls_token1,
     aux_sym_in_out_decls_token1, aux_sym_var_decls_token1, aux_sym_temp_var_decls_token1,
     aux_sym_external_var_decls_token1, aux_sym_global_var_decls_token1, aux_sym_func_decl_token1,
     aux_sym_func_decl_token2, aux_sym_fb_decl_token1, aux_sym_fb_decl_token4,
     aux_sym_method_decl_token3, aux_sym_class_decl_token1, aux_sym_class_decl_token2,
     aux_sym_interface_decl_token1, aux_sym_interface_decl_token2, aux_sym_prog_decl_token1,
     aux_sym_prog_decl_token2, aux_sym_transition_token4, aux_sym_config_decl_token1,
     aux_sym_config_decl_token2, aux_sym_resource_decl_token1, aux_sym_resource_decl_token3,
     aux_sym_namespace_decl_token1, aux_sym_namespace_decl_token2, aux_sym_using_directive_token1,
     aux_sym_if_stmt_token2, aux_sym_if_stmt_token3, aux_sym_if_stmt_token4,
     aux_sym_else_if_stmt_token1, aux_sym_case_stmt_token2, aux_sym_for_stmt_token2,
     aux_sym_for_stmt_token3, aux_sym_for_list_token1, aux_sym_while_stmt_token2,
     aux_sym_repeat_stmt_token2, aux_sym_repeat_stmt_token3]"

text \<open>Lines 51329 to 51379.\<close>

definition ts_reserved_words_20 :: "TSSymbol list" where
  "ts_reserved_words_20 =
    [aux_sym_ERR_implements_before_extends_token1, aux_sym_ERR_extends_multiple_times_token1,
     aux_sym_ERR_doubled_qualifier_token1, aux_sym_ERR_doubled_qualifier_token2,
     aux_sym_data_type_decl_token1, aux_sym_data_type_decl_token2, aux_sym_array_type_spec_token2,
     aux_sym_struct_type_spec_token1, aux_sym_struct_type_spec_token3,
     aux_sym_relative_located_at_token1, aux_sym_ref_type_spec_token1, aux_sym_ref_addr_token1,
     aux_sym_input_decls_token1, aux_sym_input_decls_token2, aux_sym_output_decls_token1,
     aux_sym_in_out_decls_token1, aux_sym_var_decls_token1, aux_sym_temp_var_decls_token1,
     aux_sym_external_var_decls_token1, aux_sym_global_var_decls_token1, aux_sym_func_decl_token1,
     aux_sym_func_decl_token2, aux_sym_fb_decl_token1, aux_sym_fb_decl_token4,
     aux_sym_method_decl_token3, aux_sym_class_decl_token1, aux_sym_class_decl_token2,
     aux_sym_interface_decl_token1, aux_sym_interface_decl_token2, aux_sym_prog_decl_token1,
     aux_sym_prog_decl_token2, aux_sym_transition_token4, aux_sym_config_decl_token1,
     aux_sym_config_decl_token2, aux_sym_resource_decl_token1, aux_sym_resource_decl_token3,
     aux_sym_namespace_decl_token1, aux_sym_namespace_decl_token2, aux_sym_using_directive_token1,
     aux_sym_if_stmt_token2, aux_sym_if_stmt_token3, aux_sym_if_stmt_token4,
     aux_sym_else_if_stmt_token1, aux_sym_case_stmt_token2, aux_sym_for_list_token1,
     aux_sym_while_stmt_token2, aux_sym_repeat_stmt_token2, aux_sym_repeat_stmt_token3,
     aux_sym_ERR_end_try_spelling_token1]"

text \<open>Lines 51380 to 51431.\<close>

definition ts_reserved_words_21 :: "TSSymbol list" where
  "ts_reserved_words_21 =
    [aux_sym_ERR_implements_before_extends_token1, aux_sym_ERR_extends_multiple_times_token1,
     aux_sym_ERR_doubled_qualifier_token1, aux_sym_ERR_doubled_qualifier_token2,
     aux_sym_data_type_decl_token1, aux_sym_data_type_decl_token2, aux_sym_array_type_spec_token2,
     aux_sym_struct_type_spec_token1, aux_sym_struct_type_spec_token3,
     aux_sym_relative_located_at_token1, aux_sym_ref_type_spec_token1, aux_sym_ref_addr_token1,
     aux_sym_input_decls_token1, aux_sym_input_decls_token2, aux_sym_output_decls_token1,
     aux_sym_in_out_decls_token1, aux_sym_var_decls_token1, aux_sym_temp_var_decls_token1,
     aux_sym_external_var_decls_token1, aux_sym_global_var_decls_token1, aux_sym_func_decl_token1,
     aux_sym_func_decl_token2, aux_sym_fb_decl_token1, aux_sym_fb_decl_token4,
     aux_sym_method_decl_token3, aux_sym_class_decl_token1, aux_sym_class_decl_token2,
     aux_sym_interface_decl_token1, aux_sym_interface_decl_token2, aux_sym_prog_decl_token1,
     aux_sym_prog_decl_token2, aux_sym_transition_token4, aux_sym_config_decl_token1,
     aux_sym_config_decl_token2, aux_sym_resource_decl_token1, aux_sym_resource_decl_token3,
     aux_sym_namespace_decl_token1, aux_sym_namespace_decl_token2, aux_sym_using_directive_token1,
     aux_sym_if_stmt_token2, aux_sym_if_stmt_token3, aux_sym_if_stmt_token4,
     aux_sym_else_if_stmt_token1, aux_sym_case_stmt_token2, aux_sym_for_stmt_token2,
     aux_sym_for_stmt_token3, aux_sym_for_list_token1, aux_sym_repeat_stmt_token2,
     aux_sym_repeat_stmt_token3, aux_sym_ERR_end_try_spelling_token1]"

text \<open>Lines 51432 to 51483.\<close>

definition ts_reserved_words_22 :: "TSSymbol list" where
  "ts_reserved_words_22 =
    [aux_sym_ERR_implements_before_extends_token1, aux_sym_ERR_extends_multiple_times_token1,
     aux_sym_ERR_doubled_qualifier_token1, aux_sym_ERR_doubled_qualifier_token2,
     aux_sym_data_type_decl_token1, aux_sym_data_type_decl_token2, aux_sym_array_type_spec_token2,
     aux_sym_struct_type_spec_token1, aux_sym_struct_type_spec_token3,
     aux_sym_relative_located_at_token1, aux_sym_ref_type_spec_token1, aux_sym_ref_addr_token1,
     aux_sym_input_decls_token1, aux_sym_input_decls_token2, aux_sym_output_decls_token1,
     aux_sym_in_out_decls_token1, aux_sym_var_decls_token1, aux_sym_temp_var_decls_token1,
     aux_sym_external_var_decls_token1, aux_sym_global_var_decls_token1, aux_sym_func_decl_token1,
     aux_sym_func_decl_token2, aux_sym_fb_decl_token1, aux_sym_fb_decl_token4,
     aux_sym_method_decl_token3, aux_sym_class_decl_token1, aux_sym_class_decl_token2,
     aux_sym_interface_decl_token1, aux_sym_interface_decl_token2, aux_sym_prog_decl_token1,
     aux_sym_prog_decl_token2, aux_sym_transition_token4, aux_sym_config_decl_token1,
     aux_sym_config_decl_token2, aux_sym_resource_decl_token1, aux_sym_resource_decl_token3,
     aux_sym_namespace_decl_token1, aux_sym_namespace_decl_token2, aux_sym_using_directive_token1,
     aux_sym_if_stmt_token2, aux_sym_if_stmt_token3, aux_sym_if_stmt_token4,
     aux_sym_else_if_stmt_token1, aux_sym_case_stmt_token2, aux_sym_for_stmt_token2,
     aux_sym_for_stmt_token3, aux_sym_for_list_token1, aux_sym_while_stmt_token2,
     aux_sym_repeat_stmt_token3, aux_sym_ERR_end_try_spelling_token1]"

text \<open>Lines 51484 to 51535.\<close>

definition ts_reserved_words_23 :: "TSSymbol list" where
  "ts_reserved_words_23 =
    [aux_sym_ERR_implements_before_extends_token1, aux_sym_ERR_extends_multiple_times_token1,
     aux_sym_ERR_doubled_qualifier_token1, aux_sym_ERR_doubled_qualifier_token2,
     aux_sym_data_type_decl_token1, aux_sym_data_type_decl_token2, aux_sym_array_type_spec_token2,
     aux_sym_struct_type_spec_token1, aux_sym_struct_type_spec_token3,
     aux_sym_relative_located_at_token1, aux_sym_ref_type_spec_token1, aux_sym_ref_addr_token1,
     aux_sym_input_decls_token1, aux_sym_input_decls_token2, aux_sym_output_decls_token1,
     aux_sym_in_out_decls_token1, aux_sym_var_decls_token1, aux_sym_temp_var_decls_token1,
     aux_sym_external_var_decls_token1, aux_sym_global_var_decls_token1, aux_sym_func_decl_token1,
     aux_sym_func_decl_token2, aux_sym_fb_decl_token1, aux_sym_fb_decl_token4,
     aux_sym_method_decl_token3, aux_sym_class_decl_token1, aux_sym_class_decl_token2,
     aux_sym_interface_decl_token1, aux_sym_interface_decl_token2, aux_sym_prog_decl_token1,
     aux_sym_prog_decl_token2, aux_sym_transition_token4, aux_sym_config_decl_token1,
     aux_sym_config_decl_token2, aux_sym_resource_decl_token1, aux_sym_resource_decl_token3,
     aux_sym_namespace_decl_token1, aux_sym_namespace_decl_token2, aux_sym_using_directive_token1,
     aux_sym_if_stmt_token2, aux_sym_if_stmt_token3, aux_sym_else_if_stmt_token1,
     aux_sym_case_stmt_token2, aux_sym_for_stmt_token2, aux_sym_for_stmt_token3,
     aux_sym_for_list_token1, aux_sym_while_stmt_token2, aux_sym_repeat_stmt_token2,
     aux_sym_repeat_stmt_token3, aux_sym_ERR_end_try_spelling_token1]"

text \<open>Lines 51536 to 51587.\<close>

definition ts_reserved_words_24 :: "TSSymbol list" where
  "ts_reserved_words_24 =
    [aux_sym_ERR_implements_before_extends_token1, aux_sym_ERR_extends_multiple_times_token1,
     aux_sym_ERR_doubled_qualifier_token1, aux_sym_ERR_doubled_qualifier_token2,
     aux_sym_data_type_decl_token1, aux_sym_data_type_decl_token2, aux_sym_array_type_spec_token2,
     aux_sym_struct_type_spec_token1, aux_sym_struct_type_spec_token3,
     aux_sym_relative_located_at_token1, aux_sym_ref_type_spec_token1, aux_sym_ref_addr_token1,
     aux_sym_input_decls_token1, aux_sym_input_decls_token2, aux_sym_output_decls_token1,
     aux_sym_in_out_decls_token1, aux_sym_var_decls_token1, aux_sym_temp_var_decls_token1,
     aux_sym_external_var_decls_token1, aux_sym_global_var_decls_token1, aux_sym_func_decl_token1,
     aux_sym_func_decl_token2, aux_sym_fb_decl_token1, aux_sym_fb_decl_token4,
     aux_sym_method_decl_token3, aux_sym_class_decl_token1, aux_sym_class_decl_token2,
     aux_sym_interface_decl_token1, aux_sym_interface_decl_token2, aux_sym_prog_decl_token1,
     aux_sym_prog_decl_token2, aux_sym_transition_token4, aux_sym_config_decl_token1,
     aux_sym_config_decl_token2, aux_sym_resource_decl_token1, aux_sym_resource_decl_token3,
     aux_sym_namespace_decl_token1, aux_sym_namespace_decl_token2, aux_sym_using_directive_token1,
     aux_sym_if_stmt_token2, aux_sym_if_stmt_token3, aux_sym_if_stmt_token4,
     aux_sym_else_if_stmt_token1, aux_sym_for_stmt_token2, aux_sym_for_stmt_token3,
     aux_sym_for_list_token1, aux_sym_while_stmt_token2, aux_sym_repeat_stmt_token2,
     aux_sym_repeat_stmt_token3, aux_sym_ERR_end_try_spelling_token1]"

text \<open>Lines 51588 to 51639.\<close>

definition ts_reserved_words_25 :: "TSSymbol list" where
  "ts_reserved_words_25 =
    [aux_sym_ERR_implements_before_extends_token1, aux_sym_ERR_extends_multiple_times_token1,
     aux_sym_ERR_doubled_qualifier_token1, aux_sym_ERR_doubled_qualifier_token2,
     aux_sym_data_type_decl_token1, aux_sym_data_type_decl_token2, aux_sym_array_type_spec_token2,
     aux_sym_struct_type_spec_token1, aux_sym_struct_type_spec_token3,
     aux_sym_relative_located_at_token1, aux_sym_ref_type_spec_token1, aux_sym_ref_addr_token1,
     aux_sym_input_decls_token1, aux_sym_input_decls_token2, aux_sym_output_decls_token1,
     aux_sym_in_out_decls_token1, aux_sym_var_decls_token1, aux_sym_temp_var_decls_token1,
     aux_sym_external_var_decls_token1, aux_sym_global_var_decls_token1, aux_sym_func_decl_token1,
     aux_sym_func_decl_token2, aux_sym_fb_decl_token1, aux_sym_fb_decl_token4,
     aux_sym_method_decl_token3, aux_sym_class_decl_token1, aux_sym_class_decl_token2,
     aux_sym_interface_decl_token1, aux_sym_interface_decl_token2, aux_sym_prog_decl_token1,
     aux_sym_prog_decl_token2, aux_sym_transition_token4, aux_sym_config_decl_token1,
     aux_sym_config_decl_token2, aux_sym_resource_decl_token1, aux_sym_resource_decl_token3,
     aux_sym_namespace_decl_token1, aux_sym_namespace_decl_token2, aux_sym_using_directive_token1,
     aux_sym_if_stmt_token2, aux_sym_if_stmt_token3, aux_sym_if_stmt_token4,
     aux_sym_else_if_stmt_token1, aux_sym_case_stmt_token2, aux_sym_for_stmt_token2,
     aux_sym_for_list_token1, aux_sym_while_stmt_token2, aux_sym_repeat_stmt_token2,
     aux_sym_repeat_stmt_token3, aux_sym_ERR_end_try_spelling_token1]"

text \<open>Lines 51640 to 51670.\<close>

definition ts_reserved_words_26 :: "TSSymbol list" where
  "ts_reserved_words_26 =
    [aux_sym_data_type_decl_token1, aux_sym_array_type_spec_token2, aux_sym_struct_type_spec_token1,
     aux_sym_ref_type_spec_token1, aux_sym_ref_addr_token1, aux_sym_func_decl_token1,
     aux_sym_fb_decl_token1, aux_sym_class_decl_token1, aux_sym_class_decl_token2,
     aux_sym_interface_decl_token1, aux_sym_prog_decl_token2, aux_sym_transition_token4,
     aux_sym_config_decl_token1, aux_sym_config_decl_token2, aux_sym_resource_decl_token1,
     aux_sym_namespace_decl_token1, aux_sym_namespace_decl_token2, aux_sym_if_stmt_token2,
     aux_sym_if_stmt_token3, aux_sym_if_stmt_token4, aux_sym_else_if_stmt_token1,
     aux_sym_case_stmt_token2, aux_sym_for_stmt_token2, aux_sym_for_stmt_token3,
     aux_sym_for_list_token1, aux_sym_while_stmt_token2, aux_sym_repeat_stmt_token2,
     aux_sym_repeat_stmt_token3, aux_sym_ERR_end_try_spelling_token1]"

text \<open>Lines 51671 to 51711.\<close>

definition ts_reserved_words_27 :: "TSSymbol list" where
  "ts_reserved_words_27 =
    [aux_sym_ERR_implements_before_extends_token1, aux_sym_ERR_extends_multiple_times_token1,
     aux_sym_ERR_doubled_qualifier_token1, aux_sym_ERR_doubled_qualifier_token2,
     aux_sym_data_type_decl_token1, aux_sym_data_type_decl_token2, aux_sym_array_type_spec_token2,
     aux_sym_struct_type_spec_token1, aux_sym_struct_type_spec_token3,
     aux_sym_relative_located_at_token1, aux_sym_ref_type_spec_token1, aux_sym_ref_addr_token1,
     aux_sym_input_decls_token1, aux_sym_input_decls_token2, aux_sym_output_decls_token1,
     aux_sym_in_out_decls_token1, aux_sym_var_decls_token1, aux_sym_temp_var_decls_token1,
     aux_sym_external_var_decls_token1, aux_sym_global_var_decls_token1, aux_sym_func_decl_token1,
     aux_sym_fb_decl_token1, aux_sym_class_decl_token1, aux_sym_class_decl_token2,
     aux_sym_interface_decl_token1, aux_sym_interface_decl_token2, aux_sym_prog_decl_token1,
     aux_sym_transition_token4, aux_sym_config_decl_token1, aux_sym_config_decl_token2,
     aux_sym_resource_decl_token1, aux_sym_resource_decl_token3, aux_sym_namespace_decl_token1,
     aux_sym_namespace_decl_token2, aux_sym_using_directive_token1, aux_sym_if_stmt_token2,
     aux_sym_for_stmt_token2, aux_sym_for_list_token1, aux_sym_repeat_stmt_token3]"

text \<open>Lines 51712 to 51748.\<close>

definition ts_reserved_words_28 :: "TSSymbol list" where
  "ts_reserved_words_28 =
    [aux_sym_ERR_implements_before_extends_token1, aux_sym_ERR_extends_multiple_times_token1,
     aux_sym_data_type_decl_token1, aux_sym_array_type_spec_token2, aux_sym_struct_type_spec_token1,
     aux_sym_ref_type_spec_token1, aux_sym_ref_addr_token1, aux_sym_func_decl_token1,
     aux_sym_fb_decl_token1, aux_sym_fb_decl_token4, aux_sym_class_decl_token1,
     aux_sym_class_decl_token2, aux_sym_interface_decl_token1, aux_sym_interface_decl_token2,
     aux_sym_prog_decl_token1, aux_sym_prog_decl_token2, aux_sym_transition_token4,
     aux_sym_config_decl_token1, aux_sym_config_decl_token2, aux_sym_resource_decl_token1,
     aux_sym_resource_decl_token3, aux_sym_namespace_decl_token1, aux_sym_namespace_decl_token2,
     aux_sym_if_stmt_token2, aux_sym_if_stmt_token3, aux_sym_if_stmt_token4,
     aux_sym_else_if_stmt_token1, aux_sym_case_stmt_token2, aux_sym_for_stmt_token2,
     aux_sym_for_stmt_token3, aux_sym_for_list_token1, aux_sym_while_stmt_token2,
     aux_sym_repeat_stmt_token2, aux_sym_repeat_stmt_token3, aux_sym_ERR_end_try_spelling_token1]"

text \<open>Lines 51749 to 51787.\<close>

definition ts_reserved_words_29 :: "TSSymbol list" where
  "ts_reserved_words_29 =
    [aux_sym_ERR_implements_before_extends_token1, aux_sym_ERR_extends_multiple_times_token1,
     aux_sym_ERR_doubled_qualifier_token1, aux_sym_ERR_doubled_qualifier_token2,
     aux_sym_data_type_decl_token1, aux_sym_data_type_decl_token2, aux_sym_array_type_spec_token2,
     aux_sym_struct_type_spec_token1, aux_sym_struct_type_spec_token3, aux_sym_ref_type_spec_token1,
     aux_sym_ref_addr_token1, aux_sym_input_decls_token1, aux_sym_output_decls_token1,
     aux_sym_in_out_decls_token1, aux_sym_var_decls_token1, aux_sym_temp_var_decls_token1,
     aux_sym_external_var_decls_token1, aux_sym_global_var_decls_token1, aux_sym_func_decl_token1,
     aux_sym_fb_decl_token1, aux_sym_class_decl_token1, aux_sym_class_decl_token2,
     aux_sym_interface_decl_token1, aux_sym_interface_decl_token2, aux_sym_prog_decl_token1,
     aux_sym_transition_token4, aux_sym_config_decl_token1, aux_sym_config_decl_token2,
     aux_sym_resource_decl_token1, aux_sym_resource_decl_token3, aux_sym_namespace_decl_token1,
     aux_sym_namespace_decl_token2, aux_sym_using_directive_token1, aux_sym_if_stmt_token2,
     aux_sym_for_stmt_token2, aux_sym_for_list_token1, aux_sym_repeat_stmt_token3]"

text \<open>Lines 51788 to 51821.\<close>

definition ts_reserved_words_30 :: "TSSymbol list" where
  "ts_reserved_words_30 =
    [aux_sym_ERR_implements_before_extends_token1, aux_sym_ERR_extends_multiple_times_token1,
     aux_sym_ERR_doubled_qualifier_token1, aux_sym_ERR_doubled_qualifier_token2,
     aux_sym_data_type_decl_token1, aux_sym_data_type_decl_token2, aux_sym_array_type_spec_token2,
     aux_sym_struct_type_spec_token1, aux_sym_struct_type_spec_token3,
     aux_sym_relative_located_at_token1, aux_sym_ref_type_spec_token1, aux_sym_ref_addr_token1,
     aux_sym_input_decls_token2, aux_sym_func_decl_token1, aux_sym_fb_decl_token1,
     aux_sym_class_decl_token1, aux_sym_class_decl_token2, aux_sym_interface_decl_token1,
     aux_sym_interface_decl_token2, aux_sym_prog_decl_token1, aux_sym_transition_token4,
     aux_sym_config_decl_token1, aux_sym_config_decl_token2, aux_sym_resource_decl_token1,
     aux_sym_resource_decl_token3, aux_sym_namespace_decl_token1, aux_sym_namespace_decl_token2,
     aux_sym_using_directive_token1, aux_sym_if_stmt_token2, aux_sym_for_stmt_token2,
     aux_sym_for_list_token1, aux_sym_repeat_stmt_token3]"

text \<open>Lines 51822 to 51887.\<close>

definition ts_reserved_words_31 :: "TSSymbol list" where
  "ts_reserved_words_31 =
    [aux_sym_ERR_implements_before_extends_token1, aux_sym_ERR_extends_multiple_times_token1,
     aux_sym_ERR_doubled_qualifier_token1, aux_sym_ERR_doubled_qualifier_token2,
     aux_sym_data_type_decl_token1, aux_sym_data_type_decl_token2, aux_sym_array_type_spec_token2,
     aux_sym_struct_type_spec_token1, aux_sym_struct_type_spec_token3,
     aux_sym_relative_located_at_token1, anon_sym_PERCENT, aux_sym_ref_addr_token1,
     aux_sym_input_decls_token1, aux_sym_input_decls_token2, aux_sym_output_decls_token1,
     aux_sym_in_out_decls_token1, aux_sym_var_decls_token1, aux_sym_temp_var_decls_token1,
     aux_sym_external_var_decls_token1, aux_sym_global_var_decls_token1, aux_sym_func_decl_token1,
     aux_sym_func_decl_token2, aux_sym_fb_decl_token1, aux_sym_fb_decl_token4,
     aux_sym_method_decl_token1, aux_sym_method_decl_token3, aux_sym_class_decl_token1,
     aux_sym_class_decl_token2, aux_sym_interface_decl_token1, aux_sym_interface_decl_token2,
     aux_sym_prog_decl_token1, aux_sym_prog_decl_token2, aux_sym_transition_token4,
     aux_sym_config_decl_token1, aux_sym_config_decl_token2, aux_sym_resource_decl_token1,
     aux_sym_resource_decl_token3, aux_sym_namespace_decl_token1, aux_sym_namespace_decl_token2,
     aux_sym_using_directive_token1, aux_sym__stmt_token1, aux_sym__stmt_token2,
     aux_sym_if_stmt_token1, aux_sym_if_stmt_token2, aux_sym_if_stmt_token3, aux_sym_if_stmt_token4,
     aux_sym_else_if_stmt_token1, aux_sym_case_stmt_token1, aux_sym_case_stmt_token2,
     aux_sym_for_stmt_token1, aux_sym_for_stmt_token2, aux_sym_for_stmt_token3,
     aux_sym_for_list_token1, aux_sym_while_stmt_token1, aux_sym_while_stmt_token2,
     aux_sym_repeat_stmt_token1, aux_sym_repeat_stmt_token2, aux_sym_repeat_stmt_token3,
     aux_sym_raise_stmt_token1, aux_sym_try_stmt_token1, aux_sym_try_stmt_token2,
     aux_sym_catch_clause_token1, aux_sym_finally_clause_token1, aux_sym_ERR_end_try_spelling_token1]"

text \<open>Lines 51888 to 51953.\<close>

definition ts_reserved_words_32 :: "TSSymbol list" where
  "ts_reserved_words_32 =
    [aux_sym_ERR_implements_before_extends_token1, aux_sym_ERR_extends_multiple_times_token1,
     aux_sym_ERR_doubled_qualifier_token1, aux_sym_ERR_doubled_qualifier_token2,
     aux_sym_data_type_decl_token1, aux_sym_data_type_decl_token2, aux_sym_array_type_spec_token2,
     aux_sym_struct_type_spec_token3, aux_sym_relative_located_at_token1, anon_sym_PERCENT,
     aux_sym_ref_type_spec_token1, aux_sym_ref_addr_token1, aux_sym_input_decls_token1,
     aux_sym_input_decls_token2, aux_sym_output_decls_token1, aux_sym_in_out_decls_token1,
     aux_sym_var_decls_token1, aux_sym_temp_var_decls_token1, aux_sym_external_var_decls_token1,
     aux_sym_global_var_decls_token1, aux_sym_func_decl_token1, aux_sym_func_decl_token2,
     aux_sym_fb_decl_token1, aux_sym_fb_decl_token4, aux_sym_method_decl_token1,
     aux_sym_method_decl_token3, aux_sym_class_decl_token1, aux_sym_class_decl_token2,
     aux_sym_interface_decl_token1, aux_sym_interface_decl_token2, aux_sym_prog_decl_token1,
     aux_sym_prog_decl_token2, aux_sym_transition_token4, aux_sym_config_decl_token1,
     aux_sym_config_decl_token2, aux_sym_resource_decl_token1, aux_sym_resource_decl_token3,
     aux_sym_namespace_decl_token1, aux_sym_namespace_decl_token2, aux_sym_using_directive_token1,
     aux_sym__stmt_token1, aux_sym__stmt_token2, aux_sym_if_stmt_token1, aux_sym_if_stmt_token2,
     aux_sym_if_stmt_token3, aux_sym_if_stmt_token4, aux_sym_else_if_stmt_token1,
     aux_sym_case_stmt_token1, aux_sym_case_stmt_token2, aux_sym_for_stmt_token1,
     aux_sym_for_stmt_token2, aux_sym_for_stmt_token3, aux_sym_for_list_token1,
     aux_sym_while_stmt_token1, aux_sym_while_stmt_token2, aux_sym_repeat_stmt_token1,
     aux_sym_repeat_stmt_token2, aux_sym_repeat_stmt_token3, aux_sym_raise_stmt_token1,
     aux_sym_try_stmt_token1, aux_sym_try_stmt_token2, aux_sym_catch_clause_token1,
     aux_sym_finally_clause_token1, aux_sym_ERR_end_try_spelling_token1]"

text \<open>Lines 51954 to 51994.\<close>

definition ts_reserved_words_33 :: "TSSymbol list" where
  "ts_reserved_words_33 =
    [aux_sym_ERR_doubled_qualifier_token1, aux_sym_ERR_doubled_qualifier_token2,
     aux_sym_data_type_decl_token1, aux_sym_data_type_decl_token2, aux_sym_array_type_spec_token2,
     aux_sym_struct_type_spec_token1, aux_sym_struct_type_spec_token3,
     aux_sym_relative_located_at_token1, aux_sym_ref_type_spec_token1, aux_sym_ref_addr_token1,
     aux_sym_input_decls_token2, aux_sym_func_decl_token1, aux_sym_func_decl_token2,
     aux_sym_fb_decl_token1, aux_sym_method_decl_token3, aux_sym_class_decl_token1,
     aux_sym_class_decl_token2, aux_sym_interface_decl_token1, aux_sym_prog_decl_token1,
     aux_sym_prog_decl_token2, aux_sym_transition_token4, aux_sym_config_decl_token1,
     aux_sym_config_decl_token2, aux_sym_resource_decl_token1, aux_sym_resource_decl_token3,
     aux_sym_namespace_decl_token1, aux_sym_namespace_decl_token2, aux_sym_if_stmt_token2,
     aux_sym_if_stmt_token3, aux_sym_if_stmt_token4, aux_sym_else_if_stmt_token1,
     aux_sym_case_stmt_token2, aux_sym_for_stmt_token2, aux_sym_for_stmt_token3,
     aux_sym_for_list_token1, aux_sym_while_stmt_token2, aux_sym_repeat_stmt_token2,
     aux_sym_repeat_stmt_token3, aux_sym_ERR_end_try_spelling_token1]"

text \<open>Lines 51995 to 52035.\<close>

definition ts_reserved_words_34 :: "TSSymbol list" where
  "ts_reserved_words_34 =
    [aux_sym_ERR_implements_before_extends_token1, aux_sym_ERR_extends_multiple_times_token1,
     aux_sym_ERR_doubled_qualifier_token1, aux_sym_ERR_doubled_qualifier_token2,
     aux_sym_data_type_decl_token1, aux_sym_data_type_decl_token2, aux_sym_array_type_spec_token2,
     aux_sym_struct_type_spec_token1, aux_sym_struct_type_spec_token3,
     aux_sym_relative_located_at_token1, aux_sym_ref_type_spec_token1, aux_sym_ref_addr_token1,
     aux_sym_input_decls_token2, aux_sym_func_decl_token1, aux_sym_fb_decl_token1,
     aux_sym_class_decl_token1, aux_sym_class_decl_token2, aux_sym_interface_decl_token1,
     aux_sym_interface_decl_token2, aux_sym_prog_decl_token2, aux_sym_transition_token4,
     aux_sym_config_decl_token1, aux_sym_config_decl_token2, aux_sym_resource_decl_token1,
     aux_sym_namespace_decl_token1, aux_sym_namespace_decl_token2, aux_sym_using_directive_token1,
     aux_sym_if_stmt_token2, aux_sym_if_stmt_token3, aux_sym_if_stmt_token4,
     aux_sym_else_if_stmt_token1, aux_sym_case_stmt_token2, aux_sym_for_stmt_token2,
     aux_sym_for_stmt_token3, aux_sym_for_list_token1, aux_sym_while_stmt_token2,
     aux_sym_repeat_stmt_token2, aux_sym_repeat_stmt_token3, aux_sym_ERR_end_try_spelling_token1]"

text \<open>Lines 52036 to 52078.\<close>

definition ts_reserved_words_35 :: "TSSymbol list" where
  "ts_reserved_words_35 =
    [aux_sym_ERR_implements_before_extends_token1, aux_sym_ERR_extends_multiple_times_token1,
     aux_sym_ERR_doubled_qualifier_token1, aux_sym_ERR_doubled_qualifier_token2,
     aux_sym_data_type_decl_token1, aux_sym_data_type_decl_token2, aux_sym_array_type_spec_token2,
     aux_sym_struct_type_spec_token1, aux_sym_struct_type_spec_token3,
     aux_sym_relative_located_at_token1, aux_sym_ref_type_spec_token1, aux_sym_ref_addr_token1,
     aux_sym_input_decls_token2, aux_sym_func_decl_token1, aux_sym_fb_decl_token1,
     aux_sym_method_decl_token3, aux_sym_class_decl_token1, aux_sym_class_decl_token2,
     aux_sym_interface_decl_token1, aux_sym_interface_decl_token2, aux_sym_prog_decl_token1,
     aux_sym_prog_decl_token2, aux_sym_transition_token4, aux_sym_config_decl_token1,
     aux_sym_config_decl_token2, aux_sym_resource_decl_token1, aux_sym_resource_decl_token3,
     aux_sym_namespace_decl_token1, aux_sym_namespace_decl_token2, aux_sym_if_stmt_token2,
     aux_sym_if_stmt_token3, aux_sym_if_stmt_token4, aux_sym_else_if_stmt_token1,
     aux_sym_case_stmt_token2, aux_sym_for_stmt_token2, aux_sym_for_stmt_token3,
     aux_sym_for_list_token1, aux_sym_while_stmt_token2, aux_sym_repeat_stmt_token2,
     aux_sym_repeat_stmt_token3, aux_sym_ERR_end_try_spelling_token1]"

text \<open>Lines 52079 to 52116.\<close>

definition ts_reserved_words_36 :: "TSSymbol list" where
  "ts_reserved_words_36 =
    [aux_sym_ERR_implements_before_extends_token1, aux_sym_ERR_extends_multiple_times_token1,
     aux_sym_ERR_doubled_qualifier_token1, aux_sym_ERR_doubled_qualifier_token2,
     aux_sym_data_type_decl_token1, aux_sym_data_type_decl_token2, aux_sym_array_type_spec_token2,
     aux_sym_struct_type_spec_token1, aux_sym_struct_type_spec_token3,
     aux_sym_relative_located_at_token1, aux_sym_ref_type_spec_token1, aux_sym_ref_addr_token1,
     aux_sym_input_decls_token1, aux_sym_input_decls_token2, aux_sym_output_decls_token1,
     aux_sym_in_out_decls_token1, aux_sym_var_decls_token1, aux_sym_temp_var_decls_token1,
     aux_sym_external_var_decls_token1, aux_sym_global_var_decls_token1, aux_sym_class_decl_token1,
     aux_sym_class_decl_token2, aux_sym_interface_decl_token1, aux_sym_interface_decl_token2,
     aux_sym_transition_token4, aux_sym_config_decl_token1, aux_sym_config_decl_token2,
     aux_sym_resource_decl_token1, aux_sym_resource_decl_token3, aux_sym_namespace_decl_token1,
     aux_sym_namespace_decl_token2, aux_sym_using_directive_token1, aux_sym_if_stmt_token2,
     aux_sym_for_stmt_token2, aux_sym_for_list_token1, aux_sym_repeat_stmt_token3]"

text \<open>Lines 52117 to 52159.\<close>

definition ts_reserved_words_37 :: "TSSymbol list" where
  "ts_reserved_words_37 =
    [aux_sym_ERR_implements_before_extends_token1, aux_sym_ERR_extends_multiple_times_token1,
     aux_sym_ERR_doubled_qualifier_token1, aux_sym_ERR_doubled_qualifier_token2,
     aux_sym_data_type_decl_token1, aux_sym_data_type_decl_token2, aux_sym_array_type_spec_token2,
     aux_sym_struct_type_spec_token1, aux_sym_struct_type_spec_token3,
     aux_sym_relative_located_at_token1, aux_sym_ref_type_spec_token1, aux_sym_ref_addr_token1,
     aux_sym_input_decls_token2, aux_sym_func_decl_token1, aux_sym_fb_decl_token1,
     aux_sym_class_decl_token1, aux_sym_class_decl_token2, aux_sym_interface_decl_token1,
     aux_sym_interface_decl_token2, aux_sym_prog_decl_token1, aux_sym_prog_decl_token2,
     aux_sym_transition_token4, aux_sym_config_decl_token1, aux_sym_config_decl_token2,
     aux_sym_resource_decl_token1, aux_sym_resource_decl_token3, aux_sym_namespace_decl_token1,
     aux_sym_namespace_decl_token2, aux_sym_using_directive_token1, aux_sym_if_stmt_token2,
     aux_sym_if_stmt_token3, aux_sym_if_stmt_token4, aux_sym_else_if_stmt_token1,
     aux_sym_case_stmt_token2, aux_sym_for_stmt_token2, aux_sym_for_stmt_token3,
     aux_sym_for_list_token1, aux_sym_while_stmt_token2, aux_sym_repeat_stmt_token2,
     aux_sym_repeat_stmt_token3, aux_sym_ERR_end_try_spelling_token1]"

text \<open>Lines 52160 to 52203.\<close>

definition ts_reserved_words_38 :: "TSSymbol list" where
  "ts_reserved_words_38 =
    [aux_sym_ERR_implements_before_extends_token1, aux_sym_ERR_extends_multiple_times_token1,
     aux_sym_ERR_doubled_qualifier_token1, aux_sym_ERR_doubled_qualifier_token2,
     aux_sym_data_type_decl_token1, aux_sym_data_type_decl_token2, aux_sym_array_type_spec_token2,
     aux_sym_struct_type_spec_token1, aux_sym_struct_type_spec_token3,
     aux_sym_relative_located_at_token1, aux_sym_ref_type_spec_token1, aux_sym_ref_addr_token1,
     aux_sym_input_decls_token2, aux_sym_func_decl_token1, aux_sym_fb_decl_token1,
     aux_sym_fb_decl_token4, aux_sym_class_decl_token1, aux_sym_class_decl_token2,
     aux_sym_interface_decl_token1, aux_sym_interface_decl_token2, aux_sym_prog_decl_token1,
     aux_sym_prog_decl_token2, aux_sym_transition_token4, aux_sym_config_decl_token1,
     aux_sym_config_decl_token2, aux_sym_resource_decl_token1, aux_sym_resource_decl_token3,
     aux_sym_namespace_decl_token1, aux_sym_namespace_decl_token2, aux_sym_using_directive_token1,
     aux_sym_if_stmt_token2, aux_sym_if_stmt_token3, aux_sym_if_stmt_token4,
     aux_sym_else_if_stmt_token1, aux_sym_case_stmt_token2, aux_sym_for_stmt_token2,
     aux_sym_for_stmt_token3, aux_sym_for_list_token1, aux_sym_while_stmt_token2,
     aux_sym_repeat_stmt_token2, aux_sym_repeat_stmt_token3, aux_sym_ERR_end_try_spelling_token1]"

text \<open>Lines 52204 to 52264.\<close>

definition ts_reserved_words_39 :: "TSSymbol list" where
  "ts_reserved_words_39 =
    [aux_sym_ERR_implements_before_extends_token1, aux_sym_ERR_extends_multiple_times_token1,
     aux_sym_data_type_decl_token1, aux_sym_array_type_spec_token2, aux_sym_struct_type_spec_token1,
     anon_sym_PERCENT, aux_sym_ref_type_spec_token1, aux_sym_ref_addr_token1,
     aux_sym_input_decls_token1, aux_sym_output_decls_token1, aux_sym_in_out_decls_token1,
     aux_sym_var_decls_token1, aux_sym_temp_var_decls_token1, aux_sym_external_var_decls_token1,
     aux_sym_global_var_decls_token1, aux_sym_func_decl_token1, aux_sym_func_decl_token2,
     aux_sym_fb_decl_token1, aux_sym_fb_decl_token4, aux_sym_method_decl_token1,
     aux_sym_method_decl_token3, aux_sym_class_decl_token1, aux_sym_class_decl_token2,
     aux_sym_interface_decl_token1, aux_sym_interface_decl_token2, aux_sym_prog_decl_token1,
     aux_sym_prog_decl_token2, aux_sym_transition_token4, aux_sym_config_decl_token1,
     aux_sym_config_decl_token2, aux_sym_resource_decl_token1, aux_sym_resource_decl_token3,
     aux_sym_namespace_decl_token1, aux_sym_namespace_decl_token2, aux_sym_using_directive_token1,
     aux_sym__stmt_token1, aux_sym__stmt_token2, aux_sym_if_stmt_token1, aux_sym_if_stmt_token2,
     aux_sym_if_stmt_token3, aux_sym_if_stmt_token4, aux_sym_else_if_stmt_token1,
     aux_sym_case_stmt_token1, aux_sym_case_stmt_token2, aux_sym_for_stmt_token1,
     aux_sym_for_stmt_token2, aux_sym_for_stmt_token3, aux_sym_for_list_token1,
     aux_sym_while_stmt_token1, aux_sym_while_stmt_token2, aux_sym_repeat_stmt_token1,
     aux_sym_repeat_stmt_token2, aux_sym_repeat_stmt_token3, aux_sym_raise_stmt_token1,
     aux_sym_try_stmt_token1, aux_sym_try_stmt_token2, aux_sym_catch_clause_token1,
     aux_sym_finally_clause_token1, aux_sym_ERR_end_try_spelling_token1]"

text \<open>Lines 52265 to 52327.\<close>

definition ts_reserved_words_40 :: "TSSymbol list" where
  "ts_reserved_words_40 =
    [aux_sym_ERR_implements_before_extends_token1, aux_sym_ERR_extends_multiple_times_token1,
     aux_sym_data_type_decl_token1, aux_sym_data_type_decl_token2, aux_sym_array_type_spec_token2,
     aux_sym_struct_type_spec_token1, aux_sym_struct_type_spec_token3, anon_sym_PERCENT,
     aux_sym_ref_type_spec_token1, aux_sym_ref_addr_token1, aux_sym_input_decls_token1,
     aux_sym_output_decls_token1, aux_sym_in_out_decls_token1, aux_sym_var_decls_token1,
     aux_sym_temp_var_decls_token1, aux_sym_external_var_decls_token1,
     aux_sym_global_var_decls_token1, aux_sym_func_decl_token1, aux_sym_func_decl_token2,
     aux_sym_fb_decl_token1, aux_sym_fb_decl_token4, aux_sym_method_decl_token1,
     aux_sym_method_decl_token3, aux_sym_class_decl_token1, aux_sym_class_decl_token2,
     aux_sym_interface_decl_token1, aux_sym_interface_decl_token2, aux_sym_prog_decl_token1,
     aux_sym_prog_decl_token2, aux_sym_transition_token4, aux_sym_config_decl_token1,
     aux_sym_config_decl_token2, aux_sym_resource_decl_token1, aux_sym_resource_decl_token3,
     aux_sym_namespace_decl_token1, aux_sym_namespace_decl_token2, aux_sym_using_directive_token1,
     aux_sym__stmt_token1, aux_sym__stmt_token2, aux_sym_if_stmt_token1, aux_sym_if_stmt_token2,
     aux_sym_if_stmt_token3, aux_sym_if_stmt_token4, aux_sym_else_if_stmt_token1,
     aux_sym_case_stmt_token1, aux_sym_case_stmt_token2, aux_sym_for_stmt_token1,
     aux_sym_for_stmt_token2, aux_sym_for_stmt_token3, aux_sym_for_list_token1,
     aux_sym_while_stmt_token1, aux_sym_while_stmt_token2, aux_sym_repeat_stmt_token1,
     aux_sym_repeat_stmt_token2, aux_sym_repeat_stmt_token3, aux_sym_raise_stmt_token1,
     aux_sym_try_stmt_token1, aux_sym_try_stmt_token2, aux_sym_catch_clause_token1,
     aux_sym_finally_clause_token1, aux_sym_ERR_end_try_spelling_token1]"

text \<open>Lines 52328 to 52392.\<close>

definition ts_reserved_words_41 :: "TSSymbol list" where
  "ts_reserved_words_41 =
    [aux_sym_ERR_implements_before_extends_token1, aux_sym_ERR_extends_multiple_times_token1,
     aux_sym_ERR_doubled_qualifier_token1, aux_sym_ERR_doubled_qualifier_token2,
     aux_sym_data_type_decl_token1, aux_sym_data_type_decl_token2, aux_sym_array_type_spec_token2,
     aux_sym_struct_type_spec_token1, aux_sym_struct_type_spec_token3, anon_sym_PERCENT,
     aux_sym_ref_type_spec_token1, aux_sym_ref_addr_token1, aux_sym_input_decls_token1,
     aux_sym_output_decls_token1, aux_sym_in_out_decls_token1, aux_sym_var_decls_token1,
     aux_sym_temp_var_decls_token1, aux_sym_external_var_decls_token1,
     aux_sym_global_var_decls_token1, aux_sym_func_decl_token1, aux_sym_func_decl_token2,
     aux_sym_fb_decl_token1, aux_sym_fb_decl_token4, aux_sym_method_decl_token1,
     aux_sym_method_decl_token3, aux_sym_class_decl_token1, aux_sym_class_decl_token2,
     aux_sym_interface_decl_token1, aux_sym_interface_decl_token2, aux_sym_prog_decl_token1,
     aux_sym_prog_decl_token2, aux_sym_transition_token4, aux_sym_config_decl_token1,
     aux_sym_config_decl_token2, aux_sym_resource_decl_token1, aux_sym_resource_decl_token3,
     aux_sym_namespace_decl_token1, aux_sym_namespace_decl_token2, aux_sym_using_directive_token1,
     aux_sym__stmt_token1, aux_sym__stmt_token2, aux_sym_if_stmt_token1, aux_sym_if_stmt_token2,
     aux_sym_if_stmt_token3, aux_sym_if_stmt_token4, aux_sym_else_if_stmt_token1,
     aux_sym_case_stmt_token1, aux_sym_case_stmt_token2, aux_sym_for_stmt_token1,
     aux_sym_for_stmt_token2, aux_sym_for_stmt_token3, aux_sym_for_list_token1,
     aux_sym_while_stmt_token1, aux_sym_while_stmt_token2, aux_sym_repeat_stmt_token1,
     aux_sym_repeat_stmt_token2, aux_sym_repeat_stmt_token3, aux_sym_raise_stmt_token1,
     aux_sym_try_stmt_token1, aux_sym_try_stmt_token2, aux_sym_catch_clause_token1,
     aux_sym_finally_clause_token1, aux_sym_ERR_end_try_spelling_token1]"

text \<open>Lines 52393 to 52458.\<close>

definition ts_reserved_words_42 :: "TSSymbol list" where
  "ts_reserved_words_42 =
    [aux_sym_ERR_implements_before_extends_token1, aux_sym_ERR_extends_multiple_times_token1,
     aux_sym_ERR_doubled_qualifier_token1, aux_sym_ERR_doubled_qualifier_token2,
     aux_sym_data_type_decl_token1, aux_sym_data_type_decl_token2, aux_sym_array_type_spec_token2,
     aux_sym_struct_type_spec_token1, aux_sym_struct_type_spec_token3,
     aux_sym_relative_located_at_token1, anon_sym_PERCENT, aux_sym_ref_type_spec_token1,
     aux_sym_ref_addr_token1, aux_sym_input_decls_token1, aux_sym_output_decls_token1,
     aux_sym_in_out_decls_token1, aux_sym_var_decls_token1, aux_sym_temp_var_decls_token1,
     aux_sym_external_var_decls_token1, aux_sym_global_var_decls_token1, aux_sym_func_decl_token1,
     aux_sym_func_decl_token2, aux_sym_fb_decl_token1, aux_sym_fb_decl_token4,
     aux_sym_method_decl_token1, aux_sym_method_decl_token3, aux_sym_class_decl_token1,
     aux_sym_class_decl_token2, aux_sym_interface_decl_token1, aux_sym_interface_decl_token2,
     aux_sym_prog_decl_token1, aux_sym_prog_decl_token2, aux_sym_transition_token4,
     aux_sym_config_decl_token1, aux_sym_config_decl_token2, aux_sym_resource_decl_token1,
     aux_sym_resource_decl_token3, aux_sym_namespace_decl_token1, aux_sym_namespace_decl_token2,
     aux_sym_using_directive_token1, aux_sym__stmt_token1, aux_sym__stmt_token2,
     aux_sym_if_stmt_token1, aux_sym_if_stmt_token2, aux_sym_if_stmt_token3, aux_sym_if_stmt_token4,
     aux_sym_else_if_stmt_token1, aux_sym_case_stmt_token1, aux_sym_case_stmt_token2,
     aux_sym_for_stmt_token1, aux_sym_for_stmt_token2, aux_sym_for_stmt_token3,
     aux_sym_for_list_token1, aux_sym_while_stmt_token1, aux_sym_while_stmt_token2,
     aux_sym_repeat_stmt_token1, aux_sym_repeat_stmt_token2, aux_sym_repeat_stmt_token3,
     aux_sym_raise_stmt_token1, aux_sym_try_stmt_token1, aux_sym_try_stmt_token2,
     aux_sym_catch_clause_token1, aux_sym_finally_clause_token1, aux_sym_ERR_end_try_spelling_token1]"

text \<open>Lines 52459 to 52522.\<close>

definition ts_reserved_words_43 :: "TSSymbol list" where
  "ts_reserved_words_43 =
    [aux_sym_ERR_implements_before_extends_token1, aux_sym_ERR_extends_multiple_times_token1,
     aux_sym_data_type_decl_token1, aux_sym_data_type_decl_token2, aux_sym_array_type_spec_token2,
     aux_sym_struct_type_spec_token1, aux_sym_struct_type_spec_token3,
     aux_sym_relative_located_at_token1, anon_sym_PERCENT, aux_sym_ref_type_spec_token1,
     aux_sym_ref_addr_token1, aux_sym_input_decls_token1, aux_sym_output_decls_token1,
     aux_sym_in_out_decls_token1, aux_sym_var_decls_token1, aux_sym_temp_var_decls_token1,
     aux_sym_external_var_decls_token1, aux_sym_global_var_decls_token1, aux_sym_func_decl_token1,
     aux_sym_func_decl_token2, aux_sym_fb_decl_token1, aux_sym_fb_decl_token4,
     aux_sym_method_decl_token1, aux_sym_method_decl_token3, aux_sym_class_decl_token1,
     aux_sym_class_decl_token2, aux_sym_interface_decl_token1, aux_sym_interface_decl_token2,
     aux_sym_prog_decl_token1, aux_sym_prog_decl_token2, aux_sym_transition_token4,
     aux_sym_config_decl_token1, aux_sym_config_decl_token2, aux_sym_resource_decl_token1,
     aux_sym_resource_decl_token3, aux_sym_namespace_decl_token1, aux_sym_namespace_decl_token2,
     aux_sym_using_directive_token1, aux_sym__stmt_token1, aux_sym__stmt_token2,
     aux_sym_if_stmt_token1, aux_sym_if_stmt_token2, aux_sym_if_stmt_token3, aux_sym_if_stmt_token4,
     aux_sym_else_if_stmt_token1, aux_sym_case_stmt_token1, aux_sym_case_stmt_token2,
     aux_sym_for_stmt_token1, aux_sym_for_stmt_token2, aux_sym_for_stmt_token3,
     aux_sym_for_list_token1, aux_sym_while_stmt_token1, aux_sym_while_stmt_token2,
     aux_sym_repeat_stmt_token1, aux_sym_repeat_stmt_token2, aux_sym_repeat_stmt_token3,
     aux_sym_raise_stmt_token1, aux_sym_try_stmt_token1, aux_sym_try_stmt_token2,
     aux_sym_catch_clause_token1, aux_sym_finally_clause_token1, aux_sym_ERR_end_try_spelling_token1]"

text \<open>Lines 52523 to 52586.\<close>

definition ts_reserved_words_44 :: "TSSymbol list" where
  "ts_reserved_words_44 =
    [aux_sym_ERR_implements_before_extends_token1, aux_sym_ERR_extends_multiple_times_token1,
     aux_sym_data_type_decl_token1, aux_sym_data_type_decl_token2, aux_sym_array_type_spec_token2,
     aux_sym_struct_type_spec_token1, aux_sym_relative_located_at_token1, anon_sym_PERCENT,
     aux_sym_ref_type_spec_token1, aux_sym_ref_addr_token1, aux_sym_input_decls_token1,
     aux_sym_input_decls_token2, aux_sym_output_decls_token1, aux_sym_in_out_decls_token1,
     aux_sym_var_decls_token1, aux_sym_temp_var_decls_token1, aux_sym_external_var_decls_token1,
     aux_sym_global_var_decls_token1, aux_sym_func_decl_token1, aux_sym_func_decl_token2,
     aux_sym_fb_decl_token1, aux_sym_fb_decl_token4, aux_sym_method_decl_token1,
     aux_sym_method_decl_token3, aux_sym_class_decl_token1, aux_sym_class_decl_token2,
     aux_sym_interface_decl_token1, aux_sym_interface_decl_token2, aux_sym_prog_decl_token1,
     aux_sym_prog_decl_token2, aux_sym_transition_token4, aux_sym_config_decl_token1,
     aux_sym_config_decl_token2, aux_sym_resource_decl_token1, aux_sym_resource_decl_token3,
     aux_sym_namespace_decl_token1, aux_sym_namespace_decl_token2, aux_sym_using_directive_token1,
     aux_sym__stmt_token1, aux_sym__stmt_token2, aux_sym_if_stmt_token1, aux_sym_if_stmt_token2,
     aux_sym_if_stmt_token3, aux_sym_if_stmt_token4, aux_sym_else_if_stmt_token1,
     aux_sym_case_stmt_token1, aux_sym_case_stmt_token2, aux_sym_for_stmt_token1,
     aux_sym_for_stmt_token2, aux_sym_for_stmt_token3, aux_sym_for_list_token1,
     aux_sym_while_stmt_token1, aux_sym_while_stmt_token2, aux_sym_repeat_stmt_token1,
     aux_sym_repeat_stmt_token2, aux_sym_repeat_stmt_token3, aux_sym_raise_stmt_token1,
     aux_sym_try_stmt_token1, aux_sym_try_stmt_token2, aux_sym_catch_clause_token1,
     aux_sym_finally_clause_token1, aux_sym_ERR_end_try_spelling_token1]"

text \<open>Lines 52587 to 52649.\<close>

definition ts_reserved_words_45 :: "TSSymbol list" where
  "ts_reserved_words_45 =
    [aux_sym_ERR_implements_before_extends_token1, aux_sym_ERR_extends_multiple_times_token1,
     aux_sym_data_type_decl_token1, aux_sym_array_type_spec_token2, aux_sym_struct_type_spec_token1,
     aux_sym_relative_located_at_token1, anon_sym_PERCENT, aux_sym_ref_type_spec_token1,
     aux_sym_ref_addr_token1, aux_sym_input_decls_token1, aux_sym_input_decls_token2,
     aux_sym_output_decls_token1, aux_sym_in_out_decls_token1, aux_sym_var_decls_token1,
     aux_sym_temp_var_decls_token1, aux_sym_external_var_decls_token1,
     aux_sym_global_var_decls_token1, aux_sym_func_decl_token1, aux_sym_func_decl_token2,
     aux_sym_fb_decl_token1, aux_sym_fb_decl_token4, aux_sym_method_decl_token1,
     aux_sym_method_decl_token3, aux_sym_class_decl_token1, aux_sym_class_decl_token2,
     aux_sym_interface_decl_token1, aux_sym_interface_decl_token2, aux_sym_prog_decl_token1,
     aux_sym_prog_decl_token2, aux_sym_transition_token4, aux_sym_config_decl_token1,
     aux_sym_config_decl_token2, aux_sym_resource_decl_token1, aux_sym_resource_decl_token3,
     aux_sym_namespace_decl_token1, aux_sym_namespace_decl_token2, aux_sym_using_directive_token1,
     aux_sym__stmt_token1, aux_sym__stmt_token2, aux_sym_if_stmt_token1, aux_sym_if_stmt_token2,
     aux_sym_if_stmt_token3, aux_sym_if_stmt_token4, aux_sym_else_if_stmt_token1,
     aux_sym_case_stmt_token1, aux_sym_case_stmt_token2, aux_sym_for_stmt_token1,
     aux_sym_for_stmt_token2, aux_sym_for_stmt_token3, aux_sym_for_list_token1,
     aux_sym_while_stmt_token1, aux_sym_while_stmt_token2, aux_sym_repeat_stmt_token1,
     aux_sym_repeat_stmt_token2, aux_sym_repeat_stmt_token3, aux_sym_raise_stmt_token1,
     aux_sym_try_stmt_token1, aux_sym_try_stmt_token2, aux_sym_catch_clause_token1,
     aux_sym_finally_clause_token1, aux_sym_ERR_end_try_spelling_token1]"

text \<open>Lines 52650 to 52714.\<close>

definition ts_reserved_words_46 :: "TSSymbol list" where
  "ts_reserved_words_46 =
    [aux_sym_ERR_implements_before_extends_token1, aux_sym_ERR_extends_multiple_times_token1,
     aux_sym_ERR_doubled_qualifier_token2, aux_sym_data_type_decl_token1,
     aux_sym_data_type_decl_token2, aux_sym_array_type_spec_token2, aux_sym_struct_type_spec_token1,
     aux_sym_struct_type_spec_token3, aux_sym_relative_located_at_token1, anon_sym_PERCENT,
     aux_sym_ref_type_spec_token1, aux_sym_ref_addr_token1, aux_sym_input_decls_token1,
     aux_sym_output_decls_token1, aux_sym_in_out_decls_token1, aux_sym_var_decls_token1,
     aux_sym_temp_var_decls_token1, aux_sym_external_var_decls_token1,
     aux_sym_global_var_decls_token1, aux_sym_func_decl_token1, aux_sym_func_decl_token2,
     aux_sym_fb_decl_token1, aux_sym_fb_decl_token4, aux_sym_method_decl_token1,
     aux_sym_method_decl_token3, aux_sym_class_decl_token1, aux_sym_class_decl_token2,
     aux_sym_interface_decl_token1, aux_sym_interface_decl_token2, aux_sym_prog_decl_token1,
     aux_sym_prog_decl_token2, aux_sym_transition_token4, aux_sym_config_decl_token1,
     aux_sym_config_decl_token2, aux_sym_resource_decl_token1, aux_sym_resource_decl_token3,
     aux_sym_namespace_decl_token1, aux_sym_namespace_decl_token2, aux_sym_using_directive_token1,
     aux_sym__stmt_token1, aux_sym__stmt_token2, aux_sym_if_stmt_token1, aux_sym_if_stmt_token2,
     aux_sym_if_stmt_token3, aux_sym_if_stmt_token4, aux_sym_else_if_stmt_token1,
     aux_sym_case_stmt_token1, aux_sym_case_stmt_token2, aux_sym_for_stmt_token1,
     aux_sym_for_stmt_token2, aux_sym_for_stmt_token3, aux_sym_for_list_token1,
     aux_sym_while_stmt_token1, aux_sym_while_stmt_token2, aux_sym_repeat_stmt_token1,
     aux_sym_repeat_stmt_token2, aux_sym_repeat_stmt_token3, aux_sym_raise_stmt_token1,
     aux_sym_try_stmt_token1, aux_sym_try_stmt_token2, aux_sym_catch_clause_token1,
     aux_sym_finally_clause_token1, aux_sym_ERR_end_try_spelling_token1]"

text \<open>Lines 52715 to 52780.\<close>

definition ts_reserved_words_47 :: "TSSymbol list" where
  "ts_reserved_words_47 =
    [aux_sym_ERR_implements_before_extends_token1, aux_sym_ERR_extends_multiple_times_token1,
     aux_sym_ERR_doubled_qualifier_token1, aux_sym_ERR_doubled_qualifier_token2,
     aux_sym_data_type_decl_token1, aux_sym_array_type_spec_token2, aux_sym_struct_type_spec_token1,
     aux_sym_struct_type_spec_token3, aux_sym_relative_located_at_token1, anon_sym_PERCENT,
     aux_sym_ref_type_spec_token1, aux_sym_ref_addr_token1, aux_sym_input_decls_token1,
     aux_sym_input_decls_token2, aux_sym_output_decls_token1, aux_sym_in_out_decls_token1,
     aux_sym_var_decls_token1, aux_sym_temp_var_decls_token1, aux_sym_external_var_decls_token1,
     aux_sym_global_var_decls_token1, aux_sym_func_decl_token1, aux_sym_func_decl_token2,
     aux_sym_fb_decl_token1, aux_sym_fb_decl_token4, aux_sym_method_decl_token1,
     aux_sym_method_decl_token3, aux_sym_class_decl_token1, aux_sym_class_decl_token2,
     aux_sym_interface_decl_token1, aux_sym_interface_decl_token2, aux_sym_prog_decl_token1,
     aux_sym_prog_decl_token2, aux_sym_transition_token4, aux_sym_config_decl_token1,
     aux_sym_config_decl_token2, aux_sym_resource_decl_token1, aux_sym_resource_decl_token3,
     aux_sym_namespace_decl_token1, aux_sym_namespace_decl_token2, aux_sym_using_directive_token1,
     aux_sym__stmt_token1, aux_sym__stmt_token2, aux_sym_if_stmt_token1, aux_sym_if_stmt_token2,
     aux_sym_if_stmt_token3, aux_sym_if_stmt_token4, aux_sym_else_if_stmt_token1,
     aux_sym_case_stmt_token1, aux_sym_case_stmt_token2, aux_sym_for_stmt_token1,
     aux_sym_for_stmt_token2, aux_sym_for_stmt_token3, aux_sym_for_list_token1,
     aux_sym_while_stmt_token1, aux_sym_while_stmt_token2, aux_sym_repeat_stmt_token1,
     aux_sym_repeat_stmt_token2, aux_sym_repeat_stmt_token3, aux_sym_raise_stmt_token1,
     aux_sym_try_stmt_token1, aux_sym_try_stmt_token2, aux_sym_catch_clause_token1,
     aux_sym_finally_clause_token1, aux_sym_ERR_end_try_spelling_token1]"

definition ts_reserved_words :: "TSSymbol list list" where
  "ts_reserved_words =
     map (\<lambda>ws. ws @ replicate (65 - length ws) 0)
       [[], ts_reserved_words_1, ts_reserved_words_2, ts_reserved_words_3, ts_reserved_words_4,
        ts_reserved_words_5, ts_reserved_words_6, ts_reserved_words_7, ts_reserved_words_8,
        ts_reserved_words_9, ts_reserved_words_10, ts_reserved_words_11, ts_reserved_words_12,
        ts_reserved_words_13, ts_reserved_words_14, ts_reserved_words_15, ts_reserved_words_16,
        ts_reserved_words_17, ts_reserved_words_18, ts_reserved_words_19, ts_reserved_words_20,
        ts_reserved_words_21, ts_reserved_words_22, ts_reserved_words_23, ts_reserved_words_24,
        ts_reserved_words_25, ts_reserved_words_26, ts_reserved_words_27, ts_reserved_words_28,
        ts_reserved_words_29, ts_reserved_words_30, ts_reserved_words_31, ts_reserved_words_32,
        ts_reserved_words_33, ts_reserved_words_34, ts_reserved_words_35, ts_reserved_words_36,
        ts_reserved_words_37, ts_reserved_words_38, ts_reserved_words_39, ts_reserved_words_40,
        ts_reserved_words_41, ts_reserved_words_42, ts_reserved_words_43, ts_reserved_words_44,
        ts_reserved_words_45, ts_reserved_words_46, ts_reserved_words_47]"

lemmas ts_reserved_words_parts =
  ts_reserved_words_1_def ts_reserved_words_2_def ts_reserved_words_3_def
  ts_reserved_words_4_def ts_reserved_words_5_def ts_reserved_words_6_def
  ts_reserved_words_7_def ts_reserved_words_8_def ts_reserved_words_9_def
  ts_reserved_words_10_def ts_reserved_words_11_def ts_reserved_words_12_def
  ts_reserved_words_13_def ts_reserved_words_14_def ts_reserved_words_15_def
  ts_reserved_words_16_def ts_reserved_words_17_def ts_reserved_words_18_def
  ts_reserved_words_19_def ts_reserved_words_20_def ts_reserved_words_21_def
  ts_reserved_words_22_def ts_reserved_words_23_def ts_reserved_words_24_def
  ts_reserved_words_25_def ts_reserved_words_26_def ts_reserved_words_27_def
  ts_reserved_words_28_def ts_reserved_words_29_def ts_reserved_words_30_def
  ts_reserved_words_31_def ts_reserved_words_32_def ts_reserved_words_33_def
  ts_reserved_words_34_def ts_reserved_words_35_def ts_reserved_words_36_def
  ts_reserved_words_37_def ts_reserved_words_38_def ts_reserved_words_39_def
  ts_reserved_words_40_def ts_reserved_words_41_def ts_reserved_words_42_def
  ts_reserved_words_43_def ts_reserved_words_44_def ts_reserved_words_45_def
  ts_reserved_words_46_def ts_reserved_words_47_def

end
