(* ===== verification/TSLexer_API.thy ===== *)
theory TSLexer_API
  imports Rk_Prelude
begin

text \<open>
  The interface between the parser's C code and the tree-sitter runtime: \<open>struct TSLexer\<close> of
  \<open>src/crates/tree-sitter/src/tree_sitter/parser.h\<close>. The scanner and the generated lexers reach
  the input only through its fields. The runtime that fills the function pointers is not part of
  the repository, so a value of \<open>TSLexer\<close> is an argument of every definition that uses it, over
  an unknown state \<open>'s\<close> (the memory the pointer \<open>lexer\<close> leads to).

  The locale \<open>lexer_contract\<close> states what tree-sitter documents for the callbacks, through a view
  of the state: the code points still ahead, where the token starts, where \<open>mark_end\<close> was last
  called, and the result symbol. The locale \<open>wspace_class\<close> states what the C standard says of
  \<open>iswspace\<close> in every locale. Both are interpreted below: on a lexer over a buffer held in memory,
  which also evaluates the model on concrete inputs, and on the \<open>"C"\<close> locale's \<open>iswspace\<close>.
\<close>

section \<open>The callbacks\<close>

record 's TSLexer =
  lookahead :: "'s \<Rightarrow> code_point"
  set_result_symbol :: "'s \<Rightarrow> TSSymbol \<Rightarrow> 's"
  advance :: "'s \<Rightarrow> bool \<Rightarrow> 's"
  mark_end :: "'s \<Rightarrow> 's"
  eof :: "'s \<Rightarrow> bool"

section \<open>What the runtime documents of them\<close>

text \<open>
  \<open>ahead\<close>: the input not yet read; \<open>start\<close>: the input from the first character of the token;
  \<open>marked\<close>: the input after the last \<open>mark_end\<close>, \<open>None\<close> before the first call (the token then
  ends where the scanner stopped); \<open>symbol\<close>: the result symbol.
\<close>

record lexer_view =
  ahead :: "code_point list"
  start :: "code_point list"
  marked :: "code_point list option"
  symbol :: TSSymbol

locale lexer_contract =
  fixes L :: "'s TSLexer" and view :: "'s \<Rightarrow> lexer_view"
  assumes lookahead_view:
      "lookahead L s = (case ahead (view s) of [] \<Rightarrow> 0 | c # _ \<Rightarrow> c)"
    and eof_view: "eof L s \<longleftrightarrow> ahead (view s) = []"
    and advance_view: "view (advance L s skip) =
      (view s)\<lparr>ahead := tl (ahead (view s)),
               start := (if skip then tl (ahead (view s)) else start (view s))\<rparr>"
    and mark_end_view: "view (mark_end L s) = (view s)\<lparr>marked := Some (ahead (view s))\<rparr>"
    and set_result_symbol_view: "view (set_result_symbol L s y) = (view s)\<lparr>symbol := y\<rparr>"
begin

lemmas view_simps =
  lookahead_view eof_view advance_view mark_end_view set_result_symbol_view

lemma lookahead_Cons: "ahead (view s) = c # cs \<Longrightarrow> lookahead L s = c"
  by (simp add: lookahead_view)

lemma lookahead_Nil: "ahead (view s) = [] \<Longrightarrow> lookahead L s = 0"
  by (simp add: lookahead_view)

end

text \<open>The end of the token the runtime takes: the last mark, or where the scanner stopped.\<close>

definition token_end :: "lexer_view \<Rightarrow> code_point list" where
  "token_end v = (case marked v of None \<Rightarrow> ahead v | Some r \<Rightarrow> r)"

lemma token_end_simps [simp]:
  "marked v = None \<Longrightarrow> token_end v = ahead v"
  "marked v = Some r \<Longrightarrow> token_end v = r"
  by (simp_all add: token_end_def)

text \<open>
  A call as the runtime makes it: the token starts at the current character and nothing is marked
  yet. \<open>scanned\<close> is the result of a call that found a token: its symbol, where it starts and where
  it ends.
\<close>

definition token_ready :: "('s \<Rightarrow> lexer_view) \<Rightarrow> 's \<Rightarrow> code_point list \<Rightarrow> bool" where
  "token_ready view s xs \<longleftrightarrow>
     ahead (view s) = xs \<and> start (view s) = xs \<and> marked (view s) = None"

definition scanned ::
  "('s \<Rightarrow> lexer_view) \<Rightarrow> (bool \<times> 's) option \<Rightarrow> TSSymbol \<Rightarrow> code_point list \<Rightarrow> code_point list \<Rightarrow> bool" where
  "scanned view result y from_here to_here \<longleftrightarrow>
     (\<exists>s'. result = Some (True, s') \<and> symbol (view s') = y \<and> start (view s') = from_here \<and>
       token_end (view s') = to_here)"

section \<open>White space\<close>

text \<open>
  \<open>iswspace\<close> depends on the C locale. In every one it holds of the six white-space characters of
  the standard and of no graphic character, and neither of the null character that \<open>lookahead\<close>
  shows at the end of the input.
\<close>

locale wspace_class =
  fixes iswspace :: "code_point \<Rightarrow> bool"
  assumes iswspace_standard: "c = 32 \<or> (9 \<le> c \<and> c \<le> 13) \<Longrightarrow> iswspace c"
    and not_iswspace_graphic: "33 \<le> c \<Longrightarrow> c \<le> 126 \<Longrightarrow> \<not> iswspace c"
    and not_iswspace_null: "\<not> iswspace 0"

definition c_iswspace :: "code_point \<Rightarrow> bool" where
  c_iswspace_def [char_simps]: "c_iswspace c \<longleftrightarrow> c = 32 \<or> (9 \<le> c \<and> c \<le> 13)"

interpretation c_space: wspace_class c_iswspace
  by unfold_locales (auto simp: c_iswspace_def)

section \<open>A lexer over a buffer\<close>

text \<open>
  The contract on an input held in memory: the state is its own view. It shows that the contract
  can be met, and evaluates the model.
\<close>

definition buffer_lexer :: "lexer_view TSLexer" where
  "buffer_lexer =
     \<lparr>lookahead = (\<lambda>v. case ahead v of [] \<Rightarrow> 0 | c # _ \<Rightarrow> c),
      set_result_symbol = (\<lambda>v y. v\<lparr>symbol := y\<rparr>),
      advance = (\<lambda>v skip. v\<lparr>ahead := tl (ahead v),
                   start := (if skip then tl (ahead v) else start v)\<rparr>),
      mark_end = (\<lambda>v. v\<lparr>marked := Some (ahead v)\<rparr>),
      eof = (\<lambda>v. ahead v = [])\<rparr>"

interpretation buffer: lexer_contract buffer_lexer id
  by unfold_locales (auto simp: buffer_lexer_def split: list.splits)

definition open_buffer :: "code_point list \<Rightarrow> lexer_view" where
  "open_buffer cs = \<lparr>ahead = cs, start = cs, marked = None, symbol = 0\<rparr>"

definition open_string :: "string \<Rightarrow> lexer_view" where
  "open_string cs = open_buffer (map code cs)"

lemma token_ready_buffer: "token_ready id (open_buffer xs) xs"
  by (simp add: token_ready_def open_buffer_def)

end
