(* ===== verification/External_Scanner.thy ===== *)
theory External_Scanner
  imports TSLexer_API
begin

text \<open>
  \<open>src/crates/tree-sitter/src/scanner.c\<close>: the external scanner, which reads what no regular
  expression can: the nested block comments \<open>(* *)\<close> and \<open>/* */\<close>, a pragma the grammar has no
  rule for, and the sign before a based literal.

  Every function takes the \<open>TSLexer\<close> and the state behind it and returns the C result with the new
  state. A loop that the callbacks could keep running for ever is a \<^theory_text>\<open>partial_function\<close>
  whose \<open>None\<close> is "does not return"; that it returns is a theorem under the contract of
  \<open>TSLexer_API\<close>. \<open>iswspace\<close> is an argument.
\<close>

section \<open>Token types and pragma names\<close>

datatype TokenType =
    C_STYLE_COMMENT
  | PASCAL_STYLE_COMMENT
  | PRAGMA
  | MINUS_BEFORE_BASE
  | PLUS_BEFORE_BASE

text \<open>The value of the enumerator, which is what \<open>result_symbol\<close> stores.\<close>

primrec TokenType_value :: "TokenType \<Rightarrow> TSSymbol" where
  "TokenType_value C_STYLE_COMMENT = 0"
| "TokenType_value PASCAL_STYLE_COMMENT = 1"
| "TokenType_value PRAGMA = 2"
| "TokenType_value MINUS_BEFORE_BASE = 3"
| "TokenType_value PLUS_BEFORE_BASE = 4"

definition KNOWN_PRAGMAS :: "string list" where
  "KNOWN_PRAGMAS =
     [''test'', ''once'', ''must_call'', ''export'', ''extern'', ''wasm'', ''allow'', ''warn'',
      ''info'']"

definition is_word_char :: "code_point \<Rightarrow> bool" where
  is_word_char_def [char_simps]: "is_word_char c \<longleftrightarrow>
     (code CHR ''a'' \<le> c \<and> c \<le> code CHR ''z'') \<or> (code CHR ''A'' \<le> c \<and> c \<le> code CHR ''Z'') \<or>
     (code CHR ''0'' \<le> c \<and> c \<le> code CHR ''9'') \<or> c = code CHR ''_''"

section \<open>White space\<close>

text \<open>\<open>while (iswspace(lexer->lookahead)) lexer->advance(lexer, skip);\<close>\<close>

partial_function (option) skip_wspace ::
  "(code_point \<Rightarrow> bool) \<Rightarrow> 's TSLexer \<Rightarrow> bool \<Rightarrow> 's \<Rightarrow> 's option" where
  "skip_wspace iswspace L skip s =
     (if iswspace (lookahead L s) then skip_wspace iswspace L skip (advance L s skip) else Some s)"

section \<open>\<open>scan_unknown_pragma\<close>\<close>

text \<open>
  The local variables of the word loop. \<open>word\<close> is the array \<open>char word[16]\<close>, indexed and updated in
  place; its bytes before the first write are arbitrary (they are an argument of the model).
\<close>

record word_buffer =
  word :: "int list"
  word_length :: nat
  longer :: bool

text \<open>The conversion \<open>(char)\<close> of a code point, to a signed byte.\<close>

definition to_char :: "code_point \<Rightarrow> int" where
  "to_char c = sint (word_of_int c :: 8 word)"

definition push_word_char :: "word_buffer \<Rightarrow> code_point \<Rightarrow> word_buffer" where
  "push_word_char b c =
     (if word_length b < length (word b) - 1
      then b\<lparr>word := (word b)[word_length b := to_char c], word_length := word_length b + 1\<rparr>
      else b\<lparr>longer := True\<rparr>)"

partial_function (option) read_word ::
  "'s TSLexer \<Rightarrow> word_buffer \<Rightarrow> 's \<Rightarrow> (word_buffer \<times> 's) option" where
  "read_word L b s =
     (if is_word_char (lookahead L s)
      then read_word L (push_word_char b (lookahead L s)) (advance L s False)
      else Some (b, s))"

text \<open>\<open>word[length] = '\0'\<close> and the loop of \<open>strcmp\<close> calls: a C string ends at its first null.\<close>

definition c_string :: "int list \<Rightarrow> int list" where
  "c_string bytes = takeWhile (\<lambda>x. x \<noteq> 0) bytes"

definition is_known_pragma :: "word_buffer \<Rightarrow> bool" where
  "is_known_pragma b \<longleftrightarrow>
     \<not> longer b \<and>
     list_ex (\<lambda>k. c_string ((word b)[word_length b := 0]) = map code k) KNOWN_PRAGMAS"

text \<open>The quoted string inside a pragma, up to the closing quote or the end of the input.\<close>

partial_function (option) skip_quoted ::
  "'s TSLexer \<Rightarrow> code_point \<Rightarrow> 's \<Rightarrow> 's option" where
  "skip_quoted L c s =
     (if \<not> eof L s \<and> lookahead L s \<noteq> c
      then skip_quoted L c
        (advance L (if lookahead L s = code CHR ''$'' then advance L s False else s) False)
      else Some s)"

partial_function (option) pragma_loop :: "'s TSLexer \<Rightarrow> 's \<Rightarrow> (bool \<times> 's) option" where
  "pragma_loop L s =
     (if eof L s then Some (False, s)
      else
        let c = lookahead L s; s = advance L s False in
        if c = code CHR ''}'' then
          Some (True, set_result_symbol L s (TokenType_value PRAGMA))
        else if c = code CHR 0x27 \<or> c = code CHR 0x22 then
          do {
            s \<leftarrow> skip_quoted L c s;
            if eof L s then Some (False, s) else pragma_loop L (advance L s False)
          }
        else pragma_loop L s)"

definition scan_unknown_pragma ::
  "(code_point \<Rightarrow> bool) \<Rightarrow> int list \<Rightarrow> 's TSLexer \<Rightarrow> 's \<Rightarrow> (bool \<times> 's) option" where
  "scan_unknown_pragma iswspace uninit L s =
     do {
       s \<leftarrow> skip_wspace iswspace L False (advance L s False);
       (b, s) \<leftarrow> read_word L \<lparr>word = uninit, word_length = 0, longer = False\<rparr> s;
       if is_known_pragma b then Some (False, s) else pragma_loop L s
     }"

section \<open>\<open>scan_sign_before_base\<close>\<close>

definition scan_sign_before_base :: "'s TSLexer \<Rightarrow> TokenType \<Rightarrow> 's \<Rightarrow> bool \<times> 's" where
  "scan_sign_before_base L token s =
     (let s = mark_end L (advance L s False);
          (ok, s) =
            (if lookahead L s = code CHR ''1'' then
               let s = advance L s False in (lookahead L s = code CHR ''6'', s)
             else (lookahead L s = code CHR ''2'' \<or> lookahead L s = code CHR ''8'', s))
      in if \<not> ok then (False, s)
         else
           let s = advance L s False in
           if lookahead L s \<noteq> code CHR ''#'' then (False, s)
           else (True, set_result_symbol L s (TokenType_value token)))"

section \<open>Comments\<close>

text \<open>The loop that counts the delimiters of one style, \<open>depth\<close> an \<open>unsigned\<close>.\<close>

partial_function (option) comment_loop ::
  "'s TSLexer \<Rightarrow> code_point \<Rightarrow> code_point \<Rightarrow> TokenType \<Rightarrow> uint32 \<Rightarrow> 's \<Rightarrow> (bool \<times> 's) option" where
  "comment_loop L opn cls token depth s =
     (if eof L s then Some (False, s)
      else
        let c = lookahead L s; s = advance L s False in
        if c = code CHR ''*'' \<and> lookahead L s = cls then
          let s = advance L s False; depth = depth - 1 in
          if depth = 0 then Some (True, set_result_symbol L s (TokenType_value token))
          else comment_loop L opn cls token depth s
        else if c = opn \<and> lookahead L s = code CHR ''*'' then
          comment_loop L opn cls token (depth + 1) (advance L s False)
        else comment_loop L opn cls token depth s)"

text \<open>
  The opening and closing characters of the style and its token, from the character at the start:
  \<open>(\<close> for \<open>(* *)\<close>, \<open>/\<close> for \<open>/* */\<close>.
\<close>

definition comment_style :: "code_point \<Rightarrow> (code_point \<times> code_point \<times> TokenType) option" where
  "comment_style c =
     (if c = code CHR ''('' then Some (code CHR ''('', code CHR '')'', PASCAL_STYLE_COMMENT)
      else if c = code CHR ''/'' then Some (code CHR ''/'', code CHR ''/'', C_STYLE_COMMENT)
      else None)"

definition scan_comment ::
  "'s TSLexer \<Rightarrow> (TokenType \<Rightarrow> bool) \<Rightarrow> 's \<Rightarrow> (bool \<times> 's) option" where
  "scan_comment L valid_symbols s =
     (case comment_style (lookahead L s) of
        None \<Rightarrow> Some (False, s)
      | Some (opn, cls, token) \<Rightarrow>
          if \<not> valid_symbols token then Some (False, s)
          else
            let s = advance L s False in
            if lookahead L s \<noteq> code CHR ''*'' then Some (False, s)
            else comment_loop L opn cls token 1 (advance L s False))"

section \<open>The entry points\<close>

definition tree_sitter_rk_external_scanner_scan ::
  "(code_point \<Rightarrow> bool) \<Rightarrow> int list \<Rightarrow> 's TSLexer \<Rightarrow> (TokenType \<Rightarrow> bool) \<Rightarrow> 's \<Rightarrow> (bool \<times> 's) option" where
  "tree_sitter_rk_external_scanner_scan iswspace uninit L valid_symbols s =
     (if \<not> valid_symbols C_STYLE_COMMENT \<and> \<not> valid_symbols PASCAL_STYLE_COMMENT \<and>
         \<not> valid_symbols PRAGMA \<and> \<not> valid_symbols MINUS_BEFORE_BASE \<and>
         \<not> valid_symbols PLUS_BEFORE_BASE
      then Some (False, s)
      else
        do {
          s \<leftarrow> skip_wspace iswspace L True s;
          if lookahead L s = code CHR ''{'' then
            (if valid_symbols PRAGMA then scan_unknown_pragma iswspace uninit L s
             else Some (False, s))
          else if lookahead L s = code CHR ''-'' then
            Some (if valid_symbols MINUS_BEFORE_BASE
                  then scan_sign_before_base L MINUS_BEFORE_BASE s else (False, s))
          else if lookahead L s = code CHR ''+'' then
            Some (if valid_symbols PLUS_BEFORE_BASE
                  then scan_sign_before_base L PLUS_BEFORE_BASE s else (False, s))
          else scan_comment L valid_symbols s
        })"

text \<open>
  The scanner keeps no state: \<open>create\<close> returns \<open>NULL\<close>, \<open>serialize\<close> writes no byte of the buffer and
  returns the length 0, \<open>deserialize\<close> and \<open>destroy\<close> leave everything as it is. The payload is the
  null pointer, the one value of type \<open>unit\<close>.
\<close>

definition tree_sitter_rk_external_scanner_create :: "unit" where
  "tree_sitter_rk_external_scanner_create = ()"

definition tree_sitter_rk_external_scanner_destroy :: "unit \<Rightarrow> unit" where
  "tree_sitter_rk_external_scanner_destroy payload = ()"

definition tree_sitter_rk_external_scanner_serialize ::
  "unit \<Rightarrow> int list \<Rightarrow> uint32 \<times> int list" where
  "tree_sitter_rk_external_scanner_serialize payload buffer = (0, buffer)"

definition tree_sitter_rk_external_scanner_deserialize ::
  "unit \<Rightarrow> int list \<Rightarrow> uint32 \<Rightarrow> unit" where
  "tree_sitter_rk_external_scanner_deserialize payload buffer len = payload"

section \<open>Each loop once more, unfolded\<close>

lemma skip_wspace_step:
  "iswspace (lookahead L s) \<Longrightarrow>
     skip_wspace iswspace L skip s = skip_wspace iswspace L skip (advance L s skip)"
  "\<not> iswspace (lookahead L s) \<Longrightarrow> skip_wspace iswspace L skip s = Some s"
  by (simp_all add: skip_wspace.simps)

lemma read_word_step:
  "is_word_char (lookahead L s) \<Longrightarrow>
     read_word L b s = read_word L (push_word_char b (lookahead L s)) (advance L s False)"
  "\<not> is_word_char (lookahead L s) \<Longrightarrow> read_word L b s = Some (b, s)"
  by (simp_all add: read_word.simps)

lemma not_is_word_char_0 [simp]: "\<not> is_word_char 0"
  by (simp add: is_word_char_def code_def)

end
