(* ===== verification/Pragma_Spec.thy ===== *)
theory Pragma_Spec
  imports External_Scanner
begin

text \<open>
  What an unknown pragma is, as functions and grammars over the input: its first word, and a body
  in which a quoted string hides a \<open>}\<close>. \<open>close_pragma_iff\<close> ties the reading from left to right to
  the grammar; \<open>word_buffer\<close> lemmas show that the 16 bytes of \<open>word\<close> are never written past the
  end and that the comparison with the known names sees the whole word.
\<close>

section \<open>Quoted strings and bodies\<close>

abbreviation dollar :: code_point where "dollar \<equiv> code CHR ''$''"

abbreviation is_quote :: "code_point \<Rightarrow> bool" where
  "is_quote c \<equiv> c = code CHR 0x27 \<or> c = code CHR 0x22"

text \<open>The input after the closing quote \<open>q\<close>; \<open>$\<close> takes the next character with it.\<close>

fun after_quote :: "code_point \<Rightarrow> code_point list \<Rightarrow> code_point list option" where
  "after_quote q [] = None"
| "after_quote q (c # xs) =
     (if c = q then Some xs
      else if c = dollar then (case xs of [] \<Rightarrow> None | _ # ys \<Rightarrow> after_quote q ys)
      else after_quote q xs)"

lemma after_quote_length: "after_quote q xs = Some ys \<Longrightarrow> length ys < length xs"
  by (induction q xs arbitrary: ys rule: after_quote.induct)
    (fastforce split: if_splits list.splits)+

function close_pragma :: "code_point list \<Rightarrow> code_point list option" where
  "close_pragma [] = None"
| "close_pragma (c # xs) =
     (if c = code CHR ''}'' then Some xs
      else if is_quote c then
        (case after_quote c xs of None \<Rightarrow> None | Some ys \<Rightarrow> close_pragma ys)
      else close_pragma xs)"
  by pat_completeness auto
termination
  by (relation "measure length") (auto dest: after_quote_length)

inductive quoted :: "code_point \<Rightarrow> code_point list \<Rightarrow> bool" for q where
  quoted_Nil: "quoted q []"
| quoted_char: "c \<noteq> q \<Longrightarrow> c \<noteq> dollar \<Longrightarrow> quoted q xs \<Longrightarrow> quoted q (c # xs)"
| quoted_escape: "dollar \<noteq> q \<Longrightarrow> quoted q xs \<Longrightarrow> quoted q (dollar # c # xs)"

inductive pragma_body :: "code_point list \<Rightarrow> bool" where
  body_Nil: "pragma_body []"
| body_char: "c \<noteq> code CHR ''}'' \<Longrightarrow> \<not> is_quote c \<Longrightarrow> pragma_body xs \<Longrightarrow> pragma_body (c # xs)"
| body_quoted: "is_quote q \<Longrightarrow> quoted q xs \<Longrightarrow> pragma_body ys \<Longrightarrow> pragma_body (q # xs @ q # ys)"

lemma after_quote_complete: "quoted q xs \<Longrightarrow> after_quote q (xs @ q # ys) = Some ys"
  by (induction rule: quoted.induct) auto

lemma after_quote_sound:
  "after_quote q xs = Some ys \<Longrightarrow> \<exists>zs. quoted q zs \<and> xs = zs @ q # ys"
proof (induction q xs arbitrary: ys rule: after_quote.induct)
  case (1 q)
  then show ?case by simp
next
  case (2 q c xs)
  show ?case
  proof (cases "c = q")
    case True
    with 2 show ?thesis by (intro exI[of _ "[]"]) (auto intro: quoted.intros)
  next
    case c: False
    show ?thesis
    proof (cases "c = dollar")
      case True
      with 2 c obtain x zs where "xs = x # zs" "after_quote q zs = Some ys"
        by (auto split: list.splits)
      with 2(1)[OF c True] obtain ws where "quoted q ws" "zs = ws @ q # ys"
        by blast
      with c True \<open>xs = x # zs\<close> show ?thesis
        by (intro exI[of _ "dollar # x # ws"]) (auto intro: quoted.intros)
    next
      case False
      with 2 c obtain ws where "quoted q ws" "xs = ws @ q # ys"
        by auto
      with c False show ?thesis
        by (intro exI[of _ "c # ws"]) (auto intro: quoted.intros)
    qed
  qed
qed

lemma close_pragma_complete: "pragma_body xs \<Longrightarrow> close_pragma (xs @ code CHR ''}'' # ys) = Some ys"
proof (induction rule: pragma_body.induct)
  case (body_quoted q xs zs)
  then have "q \<noteq> code CHR ''}''"
    by (auto simp: code_def)
  with body_quoted after_quote_complete[of q xs "zs @ code CHR ''}'' # ys"] show ?case
    by simp
qed auto

lemma close_pragma_sound:
  "close_pragma xs = Some ys \<Longrightarrow> \<exists>zs. pragma_body zs \<and> xs = zs @ code CHR ''}'' # ys"
proof (induction xs rule: close_pragma.induct)
  case 1
  then show ?case by simp
next
  case (2 c xs)
  show ?case
  proof (cases "c = code CHR ''}''")
    case True
    with 2 show ?thesis by (intro exI[of _ "[]"]) (auto intro: pragma_body.intros)
  next
    case c: False
    show ?thesis
    proof (cases "is_quote c")
      case True
      with 2 c obtain zs where zs: "after_quote c xs = Some zs" "close_pragma zs = Some ys"
        by (auto split: option.splits)
      then obtain us vs where "quoted c us" "xs = us @ c # zs" "pragma_body vs"
          "zs = vs @ code CHR ''}'' # ys"
        using 2(1)[OF c True zs(1,2)] after_quote_sound by blast
      with c True show ?thesis
        by (intro exI[of _ "c # us @ c # vs"]) (auto intro: body_quoted)
    next
      case False
      with 2 c obtain zs where "pragma_body zs" "xs = zs @ code CHR ''}'' # ys"
        by auto
      with c False show ?thesis
        by (intro exI[of _ "c # zs"]) (auto intro: body_char)
    qed
  qed
qed

lemma close_pragma_iff:
  "close_pragma xs = Some ys \<longleftrightarrow> (\<exists>zs. pragma_body zs \<and> xs = zs @ code CHR ''}'' # ys)"
  using close_pragma_sound close_pragma_complete by blast

section \<open>The word buffer\<close>

text \<open>
  After reading \<open>ws\<close> into a buffer of 16 bytes: the first 15 characters are stored, and \<open>longer\<close>
  says whether there were more.
\<close>

definition holds_word :: "word_buffer \<Rightarrow> code_point list \<Rightarrow> bool" where
  "holds_word b ws \<longleftrightarrow>
     length (word b) = 16 \<and> word_length b = min 15 (length ws) \<and>
     take (word_length b) (word b) = take 15 ws \<and> (longer b \<longleftrightarrow> 15 < length ws)"

lemma to_char_word_char: "is_word_char c \<Longrightarrow> to_char c = c"
  by (auto simp: is_word_char_def to_char_def code_def sint_uint uint_word_of_int_eq
      signed_take_bit_int_eq_self take_bit_int_eq_self)

lemma holds_word_empty: "length bytes = 16 \<Longrightarrow> holds_word \<lparr>word = bytes, word_length = 0, longer = False\<rparr> []"
  by (simp add: holds_word_def)

lemma holds_word_push:
  assumes "holds_word b ws" and "is_word_char c"
  shows "holds_word (push_word_char b c) (ws @ [c])"
proof (cases "length ws < 15")
  case True
  with assms show ?thesis
    by (auto simp: holds_word_def push_word_char_def to_char_word_char take_Suc_conv_app_nth)
next
  case False
  with assms show ?thesis
    by (auto simp: holds_word_def push_word_char_def)
qed

lemma is_known_pragma_iff:
  assumes "holds_word b ws" and "list_all is_word_char ws"
  shows "is_known_pragma b \<longleftrightarrow> ws \<in> map code ` set KNOWN_PRAGMAS"
proof (cases "length ws \<le> 15")
  case True
  have nonzero: "\<forall>c \<in> set ws. c \<noteq> 0"
    using assms(2) by (auto simp: list_all_iff)
  have bytes: "(word b)[word_length b := 0] = ws @ 0 # drop (Suc (length ws)) (word b)"
    using assms(1) True
    by (auto simp: holds_word_def upd_conv_take_nth_drop)
  have "c_string ((word b)[word_length b := 0]) = ws"
    unfolding bytes c_string_def using nonzero by (simp add: takeWhile_append2)
  with assms(1) True show ?thesis
    by (auto simp: is_known_pragma_def holds_word_def list_ex_iff)
next
  case False
  have "length k \<le> 15" if "k \<in> set KNOWN_PRAGMAS" for k
    using that by (auto simp: KNOWN_PRAGMAS_def)
  with False have "ws \<notin> map code ` set KNOWN_PRAGMAS"
    by (metis imageE length_map)
  with False assms(1) show ?thesis
    by (simp add: is_known_pragma_def holds_word_def)
qed

end
