(* ===== verification/Comment_Spec.thy ===== *)
theory Comment_Spec
  imports Rk_Prelude
begin

text \<open>
  What a nested block comment is, without a counter and without a lexer: the input is cut from
  left to right into the delimiters of one comment style and text, and a comment body is a
  balanced sequence of them. \<open>close_comment\<close> is the counting reading of the input, as the scanner
  does it, on a list; \<open>close_comment_iff\<close> shows that it stops after the closing delimiter that
  matches, and fails exactly when there is none.
\<close>

section \<open>Delimiters\<close>

datatype delimiter = Opening | Closing | Text code_point

text \<open>Opening and closing character of the style: \<open>(\<close> and \<open>)\<close>, or \<open>/\<close> and \<open>/\<close>.\<close>

fun delimiters :: "code_point \<Rightarrow> code_point \<Rightarrow> code_point list \<Rightarrow> delimiter list" where
  "delimiters opn cls (c # x # xs) =
     (if c = code CHR ''*'' \<and> x = cls then Closing # delimiters opn cls xs
      else if c = opn \<and> x = code CHR ''*'' then Opening # delimiters opn cls xs
      else Text c # delimiters opn cls (x # xs))"
| "delimiters opn cls [c] = [Text c]"
| "delimiters opn cls [] = []"

fun spell :: "code_point \<Rightarrow> code_point \<Rightarrow> delimiter list \<Rightarrow> code_point list" where
  "spell opn cls [] = []"
| "spell opn cls (Opening # ts) = opn # code CHR ''*'' # spell opn cls ts"
| "spell opn cls (Closing # ts) = code CHR ''*'' # cls # spell opn cls ts"
| "spell opn cls (Text c # ts) = c # spell opn cls ts"

lemma spell_delimiters [simp]: "spell opn cls (delimiters opn cls xs) = xs"
  by (induction opn cls xs rule: delimiters.induct) auto

lemma spell_append: "spell opn cls (ts @ us) = spell opn cls ts @ spell opn cls us"
  by (induction opn cls ts rule: spell.induct) auto

section \<open>Balanced bodies\<close>

inductive balanced :: "delimiter list \<Rightarrow> bool" where
  balanced_Nil: "balanced []"
| balanced_Text: "balanced ts \<Longrightarrow> balanced (Text c # ts)"
| balanced_nested: "balanced ts \<Longrightarrow> balanced us \<Longrightarrow> balanced (Opening # ts @ Closing # us)"

inductive_simps balanced_Text_iff: "balanced (Text c # ts)"

text \<open>The counting loop on delimiters: the rest after the one that brings the depth to 0.\<close>

fun leave :: "nat \<Rightarrow> delimiter list \<Rightarrow> delimiter list option" where
  "leave d [] = None"
| "leave d (Text c # ts) = leave d ts"
| "leave d (Opening # ts) = leave (Suc d) ts"
| "leave d (Closing # ts) = (if d = 1 then Some ts else leave (d - 1) ts)"

lemma leave_balanced:
  "balanced ts \<Longrightarrow> 0 < d \<Longrightarrow> leave d (ts @ us) = leave d us"
proof (induction arbitrary: d us rule: balanced.induct)
  case (balanced_nested ts vs)
  have "leave d ((Opening # ts @ Closing # vs) @ us) = leave (Suc d) (Closing # vs @ us)"
    using balanced_nested.IH(1)[of "Suc d" "Closing # vs @ us"] by simp
  also have "\<dots> = leave d us"
    using balanced_nested by simp
  finally show ?case .
qed simp_all

text \<open>
  At depth \<open>d\<close> the loop reads \<open>d\<close> balanced sequences, each closed: the innermost open comment
  first.
\<close>

abbreviation closed :: "delimiter list \<Rightarrow> delimiter list" where
  "closed ts \<equiv> ts @ [Closing]"

lemma leave_Some:
  "leave d ts = Some us \<Longrightarrow> 0 < d \<Longrightarrow>
     \<exists>bs. length bs = d \<and> list_all balanced bs \<and> ts = concat (map closed bs) @ us"
proof (induction d ts rule: leave.induct)
  case (1 d)
  then show ?case by simp
next
  case (2 d c ts)
  then obtain bs where bs: "length bs = d" "list_all balanced bs"
      "ts = concat (map closed bs) @ us"
    by auto
  then obtain b bs' where "bs = b # bs'"
    using 2 by (cases bs) auto
  with bs show ?case
    by (intro exI[of _ "(Text c # b) # bs'"]) (auto intro: balanced.intros)
next
  case (3 d ts)
  then obtain bs where bs: "length bs = Suc d" "list_all balanced bs"
      "ts = concat (map closed bs) @ us"
    by auto
  then obtain b1 b2 bs' where "bs = b1 # b2 # bs'"
    using 3 by (cases bs; cases "tl bs") auto
  with bs show ?case
    by (intro exI[of _ "(Opening # b1 @ Closing # b2) # bs'"]) (auto intro: balanced.intros)
next
  case (4 d ts)
  show ?case
  proof (cases "d = 1")
    case True
    with 4 show ?thesis
      by (intro exI[of _ "[[]]"]) (auto intro: balanced.intros)
  next
    case False
    with 4 obtain bs where "length bs = d - 1" "list_all balanced bs"
        "ts = concat (map closed bs) @ us"
      by auto
    with False 4 show ?thesis
      by (intro exI[of _ "[] # bs"]) (auto intro: balanced.intros)
  qed
qed

lemma leave_iff:
  "leave 1 ts = Some us \<longleftrightarrow> (\<exists>body. balanced body \<and> ts = body @ Closing # us)"
proof
  assume "leave 1 ts = Some us"
  then obtain bs where "length bs = 1" "list_all balanced bs" "ts = concat (map closed bs) @ us"
    using leave_Some[of 1 ts us] by auto
  then show "\<exists>body. balanced body \<and> ts = body @ Closing # us"
    by (cases bs) auto
next
  assume "\<exists>body. balanced body \<and> ts = body @ Closing # us"
  then show "leave 1 ts = Some us"
    using leave_balanced[of _ 1] by auto
qed

section \<open>The counting loop on the input\<close>

fun close_comment ::
  "code_point \<Rightarrow> code_point \<Rightarrow> nat \<Rightarrow> code_point list \<Rightarrow> code_point list option" where
  "close_comment opn cls d (c # x # xs) =
     (if c = code CHR ''*'' \<and> x = cls then
        (if d = 1 then Some xs else close_comment opn cls (d - 1) xs)
      else if c = opn \<and> x = code CHR ''*'' then close_comment opn cls (Suc d) xs
      else close_comment opn cls d (x # xs))"
| "close_comment opn cls d [c] = None"
| "close_comment opn cls d [] = None"

lemma close_comment_leave:
  "close_comment opn cls d xs = map_option (spell opn cls) (leave d (delimiters opn cls xs))"
proof (induction opn cls d xs rule: close_comment.induct)
  case (1 opn cls d c x xs)
  then show ?case by (cases "c = code CHR ''*'' \<and> x = cls") auto
qed auto

lemma close_comment_iff:
  "close_comment opn cls 1 xs = Some r \<longleftrightarrow>
     (\<exists>body us. delimiters opn cls xs = body @ Closing # us \<and> balanced body \<and> r = spell opn cls us)"
proof -
  have "close_comment opn cls 1 xs = Some r \<longleftrightarrow>
      (\<exists>us. leave 1 (delimiters opn cls xs) = Some us \<and> r = spell opn cls us)"
    by (auto simp: close_comment_leave)
  then show ?thesis
    unfolding leave_iff by blast
qed

lemma close_comment_suffix:
  "close_comment opn cls d xs = Some r \<Longrightarrow> \<exists>ys. xs = ys @ r \<and> 2 \<le> length ys"
proof (induction opn cls d xs rule: close_comment.induct)
  case (1 opn cls d c x xs)
  show ?case
  proof (cases "c = code CHR ''*'' \<and> x = cls \<and> d = 1")
    case True
    with 1 show ?thesis by (intro exI[of _ "[c, x]"]) auto
  next
    case False
    with 1 show ?thesis
      by (fastforce split: if_splits intro: exI[of _ "c # x # ys" for ys] exI[of _ "c # ys" for ys])
  qed
qed auto

end
