(* ===== verification/Scanner_Correct.thy ===== *)
theory Scanner_Correct
  imports Pragma_Spec Comment_Spec
begin

text \<open>
  The scanner against its specification: under the contract of the lexer callbacks every function
  of \<open>External_Scanner\<close> returns, and does on the state what the functions of \<open>Comment_Spec\<close> and
  \<open>Pragma_Spec\<close> do on the input. The lemmas are proved inside the contract's locale; the lexer over
  a buffer interprets them.
\<close>

section \<open>The specification of a whole call\<close>

text \<open>
  \<open>reads s' v xs\<close>: the state the call ended in, seen through the contract, is \<open>v\<close> with \<open>xs\<close> still
  ahead.
\<close>

definition known_word :: "code_point list \<Rightarrow> bool" where
  "known_word ws \<longleftrightarrow> ws \<in> map code ` set KNOWN_PRAGMAS"

text \<open>The input after the token that starts at \<open>{\<close>, \<open>None\<close> when there is none.\<close>

definition pragma_end :: "(code_point \<Rightarrow> bool) \<Rightarrow> code_point list \<Rightarrow> code_point list option" where
  "pragma_end iswspace xs =
     (let ys = dropWhile iswspace xs in
      if known_word (takeWhile is_word_char ys) then None
      else close_pragma (dropWhile is_word_char ys))"

text \<open>A based literal starts with \<open>2#\<close>, \<open>8#\<close> or \<open>16#\<close>.\<close>

definition based_literal :: "code_point list \<Rightarrow> bool" where
  "based_literal xs \<longleftrightarrow>
     (\<exists>b \<in> {''2#'', ''8#'', ''16#''}. take (length b) xs = map code b)"

definition comment_end :: "code_point list \<Rightarrow> (TokenType \<times> code_point list) option" where
  "comment_end xs =
     (case xs of
        c # x # ys \<Rightarrow>
          (case comment_style c of
             Some (opn, cls, token) \<Rightarrow>
               if x = code CHR ''*'' then map_option (Pair token) (close_comment opn cls 1 ys)
               else None
           | None \<Rightarrow> None)
      | _ \<Rightarrow> None)"

text \<open>
  The token of a call: its type and the input after it. A sign is a token of one character, so
  what follows it is the input after the sign.
\<close>

definition scanner_token ::
  "(code_point \<Rightarrow> bool) \<Rightarrow> (TokenType \<Rightarrow> bool) \<Rightarrow> code_point list \<Rightarrow> (TokenType \<times> code_point list) option" where
  "scanner_token iswspace valid xs =
     (case dropWhile iswspace xs of
        [] \<Rightarrow> None
      | c # ys \<Rightarrow>
          (case (if c = code CHR ''{'' then map_option (Pair PRAGMA) (pragma_end iswspace ys)
                 else if c = code CHR ''-'' then
                   (if based_literal ys then Some (MINUS_BEFORE_BASE, ys) else None)
                 else if c = code CHR ''+'' then
                   (if based_literal ys then Some (PLUS_BEFORE_BASE, ys) else None)
                 else comment_end (c # ys)) of
             None \<Rightarrow> None
           | Some (token, r) \<Rightarrow> if valid token then Some (token, r) else None))"

section \<open>The functions under the contract\<close>

context lexer_contract
begin

text \<open>One step of the input, the token staying where it starts.\<close>

lemma ahead_advance [simp]: "ahead (view (advance L s skip)) = tl (ahead (view s))"
  and start_advance [simp]: "start (view (advance L s False)) = start (view s)"
  and start_skip [simp]: "start (view (advance L s True)) = tl (ahead (view s))"
  and marked_advance [simp]: "marked (view (advance L s skip)) = marked (view s)"
  and symbol_advance [simp]: "symbol (view (advance L s skip)) = symbol (view s)"
  and ahead_set [simp]: "ahead (view (set_result_symbol L s y)) = ahead (view s)"
  and start_set [simp]: "start (view (set_result_symbol L s y)) = start (view s)"
  and marked_set [simp]: "marked (view (set_result_symbol L s y)) = marked (view s)"
  and symbol_set [simp]: "symbol (view (set_result_symbol L s y)) = y"
  and ahead_mark [simp]: "ahead (view (mark_end L s)) = ahead (view s)"
  and start_mark [simp]: "start (view (mark_end L s)) = start (view s)"
  and marked_mark [simp]: "marked (view (mark_end L s)) = Some (ahead (view s))"
  and symbol_mark [simp]: "symbol (view (mark_end L s)) = symbol (view s)"
  by (simp_all add: view_simps)

text \<open>
  \<open>keeps s s'\<close>: what no function but the last step of a successful scan changes.
\<close>

definition keeps :: "'s \<Rightarrow> 's \<Rightarrow> bool" where
  "keeps s s' \<longleftrightarrow> start (view s') = start (view s) \<and> marked (view s') = marked (view s)"

lemma keeps_refl [simp]: "keeps s s"
  by (simp add: keeps_def)

lemma keeps_trans: "keeps s t \<Longrightarrow> keeps t u \<Longrightarrow> keeps s u"
  by (simp add: keeps_def)

lemma keeps_advance [simp]: "keeps (advance L s False) t = keeps s t"
    "keeps s (advance L t False) = keeps s t"
    "keeps s (set_result_symbol L t y) = keeps s t"
  by (simp_all add: keeps_def)

lemma skip_wspace_returns:
  assumes "\<not> iswspace 0"
  shows "\<exists>s'. skip_wspace iswspace L skip s = Some s' \<and>
    ahead (view s') = dropWhile iswspace (ahead (view s)) \<and>
    marked (view s') = marked (view s) \<and>
    (\<not> skip \<longrightarrow> keeps s s') \<and>
    (skip \<and> start (view s) = ahead (view s) \<longrightarrow> start (view s') = ahead (view s'))"
  using refl[of "ahead (view s)"]
proof (induction "ahead (view s)" arbitrary: s)
  case Nil
  then have "lookahead L s = 0"
    using lookahead_Nil[of s] by simp
  with assms Nil show ?case
    by (intro exI[of _ s]) (simp add: skip_wspace.simps)
next
  case (Cons c cs)
  then have c: "lookahead L s = c"
    using lookahead_Cons[of s c cs] by simp
  show ?case
  proof (cases "iswspace c")
    case True
    let ?t = "advance L s skip"
    have t: "cs = ahead (view ?t)"
      using Cons.hyps(2) by simp (metis list.sel(3))
    obtain s' where "skip_wspace iswspace L skip ?t = Some s'"
        "ahead (view s') = dropWhile iswspace cs"
        "marked (view s') = marked (view s)" "\<not> skip \<longrightarrow> keeps ?t s'"
        "skip \<and> start (view ?t) = ahead (view ?t) \<longrightarrow> start (view s') = ahead (view s')"
      using Cons.hyps(1)[OF t] t by auto
    moreover have "skip_wspace iswspace L skip s = skip_wspace iswspace L skip ?t"
      using c True by (simp add: skip_wspace.simps)
    moreover have "dropWhile iswspace (ahead (view s)) = dropWhile iswspace cs"
      using True by (simp flip: Cons.hyps(2))
    ultimately show ?thesis
      by (intro exI[of _ s']) (cases skip; simp)
  next
    case False
    with c show ?thesis
      by (intro exI[of _ s]) (simp add: skip_wspace.simps flip: Cons.hyps(2))
  qed
qed


lemma read_word_returns:
  assumes "holds_word b ws" and "list_all is_word_char ws"
  shows "\<exists>b' s'. read_word L b s = Some (b', s') \<and>
    holds_word b' (ws @ takeWhile is_word_char (ahead (view s))) \<and>
    ahead (view s') = dropWhile is_word_char (ahead (view s)) \<and> keeps s s'"
  using assms
proof (induction "ahead (view s)" arbitrary: s b ws)
  case Nil
  then have "lookahead L s = 0"
    using lookahead_Nil[of s] by simp
  with Nil show ?case
    by (simp add: read_word.simps flip: Nil.hyps)
next
  case (Cons c cs)
  then have c: "lookahead L s = c"
    using lookahead_Cons[of s c cs] by simp
  show ?case
  proof (cases "is_word_char c")
    case True
    have t: "cs = ahead (view (advance L s False))"
      by (simp flip: Cons.hyps(2))
    from Cons.hyps(1)[OF t holds_word_push[OF Cons.prems(1) True]] True Cons.prems(2) show ?thesis
      by (simp add: read_word_step(1) c flip: Cons.hyps(2))
  next
    case False
    with Cons.prems show ?thesis
      by (simp add: read_word_step(2) c flip: Cons.hyps(2))
  qed
qed

text \<open>
  The loop over a quoted string stops at the closing quote, which the caller reads, or at the end.
\<close>

lemma skip_quoted_returns:
  "\<exists>s'. skip_quoted L q s = Some s' \<and> keeps s s' \<and>
    (case after_quote q (ahead (view s)) of
       None \<Rightarrow> ahead (view s') = []
     | Some ys \<Rightarrow> ahead (view s') = q # ys)"
proof (induction "length (ahead (view s))" arbitrary: s rule: less_induct)
  case less
  show ?case
  proof (cases "ahead (view s)")
    case Nil
    then show ?thesis
      by (simp add: skip_quoted.simps eof_view)
  next
    case (Cons c cs)
    have c: "lookahead L s = c" and not_eof: "\<not> eof L s"
      using Cons lookahead_Cons eof_view by simp_all
    show ?thesis
    proof (cases "c = q")
      case True
      with Cons c show ?thesis
        by (simp add: skip_quoted.simps)
    next
      case False
      let ?t = "advance L (if c = dollar then advance L s False else s) False"
      have step: "skip_quoted L q s = skip_quoted L q ?t"
        using False not_eof c by (simp add: skip_quoted.simps)
      have shorter: "length (ahead (view ?t)) < length (ahead (view s))"
        using Cons by auto
      have "after_quote q (ahead (view s)) = after_quote q (ahead (view ?t))"
        using Cons False by (auto split: list.splits)
      with less[OF shorter] step show ?thesis
        by (cases "c = dollar") auto
    qed
  qed
qed

lemma pragma_loop_returns:
  "\<exists>r s'. pragma_loop L s = Some (r, s') \<and> keeps s s' \<and>
    (case close_pragma (ahead (view s)) of
       None \<Rightarrow> \<not> r
     | Some ys \<Rightarrow> r \<and> ahead (view s') = ys \<and> symbol (view s') = TokenType_value PRAGMA)"
proof (induction "length (ahead (view s))" arbitrary: s rule: less_induct)
  case less
  show ?case
  proof (cases "ahead (view s)")
    case Nil
    then show ?thesis
      by (auto simp: pragma_loop.simps eof_view)
  next
    case (Cons c cs)
    let ?t = "advance L s False"
    have c: "lookahead L s = c" and not_eof: "\<not> eof L s"
      using Cons lookahead_Cons eof_view by simp_all
    have t: "ahead (view ?t) = cs"
      using Cons by simp
    consider "c = code CHR ''}''" | "is_quote c" "c \<noteq> code CHR ''}''"
      | "c \<noteq> code CHR ''}''" "\<not> is_quote c"
      by blast
    then show ?thesis
    proof cases
      case 1
      with Cons c not_eof show ?thesis
        by (auto simp add: pragma_loop.simps Let_def)
    next
      case 2
      obtain s1 where s1: "skip_quoted L c ?t = Some s1" "keeps ?t s1"
          "case after_quote c cs of None \<Rightarrow> ahead (view s1) = []
           | Some ys \<Rightarrow> ahead (view s1) = c # ys"
        using skip_quoted_returns[of c ?t] t by auto
      show ?thesis
      proof (cases "after_quote c cs")
        case None
        with 2 c not_eof s1 Cons show ?thesis
          by (auto simp: pragma_loop.simps[of L s] Let_def eof_view)
      next
        case (Some ys)
        let ?u = "advance L s1 False"
        have u: "ahead (view ?u) = ys" and not_eof1: "\<not> eof L s1"
          using s1 Some eof_view by simp_all
        have "length ys < length (ahead (view s))"
          using after_quote_length[OF Some] Cons by simp
        then have "length (ahead (view ?u)) < length (ahead (view s))"
          unfolding u .
        from less.hyps[OF this] have "\<exists>r s'. pragma_loop L ?u = Some (r, s') \<and> keeps ?u s' \<and>
          (case close_pragma ys of None \<Rightarrow> \<not> r
           | Some ys \<Rightarrow> r \<and> ahead (view s') = ys \<and> symbol (view s') = TokenType_value PRAGMA)"
          unfolding u .
        then show ?thesis
          using 2 c not_eof not_eof1 s1 Some Cons
          by (auto simp: pragma_loop.simps[of L s] Let_def intro: keeps_trans)
      qed
    next
      case 3
      have "length (ahead (view ?t)) < length (ahead (view s))"
        using Cons by simp
      from less[OF this] 3 c not_eof t Cons show ?thesis
        by (simp add: pragma_loop.simps[of L s] Let_def)
    qed
  qed
qed


text \<open>
  The depth is an \<open>unsigned\<close>; it cannot wrap on an input shorter than \<open>2^32\<close> characters, and
  tree-sitter's byte offsets are 32-bit numbers.
\<close>

lemma comment_loop_returns:
  assumes "0 < unat depth" and "unat depth + length (ahead (view s)) < 2 ^ 32"
    and "cls \<noteq> 0"
  shows "\<exists>r s'. comment_loop L opn cls token depth s = Some (r, s') \<and> keeps s s' \<and>
    (case close_comment opn cls (unat depth) (ahead (view s)) of
       None \<Rightarrow> \<not> r
     | Some ys \<Rightarrow> r \<and> ahead (view s') = ys \<and> symbol (view s') = TokenType_value token)"
  using assms
proof (induction "length (ahead (view s))" arbitrary: s depth rule: less_induct)
  case less
  let ?t = "advance L s False"
  let ?u = "advance L ?t False"
  show ?case
  proof (cases "ahead (view s)")
    case Nil
    then show ?thesis
      by (auto simp: comment_loop.simps eof_view)
  next
    case (Cons c cs)
    have c: "lookahead L s = c" and not_eof: "\<not> eof L s"
      using Cons lookahead_Cons eof_view by simp_all
    show ?thesis
    proof (cases cs)
      case Nil
      have "lookahead L ?t = 0" "eof L ?t"
        using Cons Nil by (simp_all add: lookahead_view eof_view)
      then show ?thesis
        using c not_eof Cons Nil less.prems(3)
        by (auto simp: comment_loop.simps[of L opn cls token depth s]
            comment_loop.simps[of L opn cls token depth ?t] Let_def code_def)
    next
      case (Cons x xs)
      have x: "lookahead L ?t = x" and t: "ahead (view ?t) = x # xs" and u: "ahead (view ?u) = xs"
        and s: "ahead (view s) = c # x # xs"
        using Cons \<open>ahead (view s) = c # cs\<close> lookahead_Cons[of ?t] by simp_all
      have shorter: "length (ahead (view ?t)) < length (ahead (view s))"
          "length (ahead (view ?u)) < length (ahead (view s))"
        using s by simp_all
      note unfold = comment_loop.simps[of L opn cls token depth s]
      consider (closing) "c = code CHR ''*''" "x = cls"
        | (nested) "\<not> (c = code CHR ''*'' \<and> x = cls)" "c = opn" "x = code CHR ''*''"
        | (other) "\<not> (c = code CHR ''*'' \<and> x = cls)" "\<not> (c = opn \<and> x = code CHR ''*'')"
        by blast
      then show ?thesis
      proof cases
        case closing
        have minus: "unat (depth - 1) = unat depth - 1"
          using less.prems(1) by (simp add: unat_sub word_le_nat_alt)
        show ?thesis
        proof (cases "unat depth = 1")
          case True
          then have "depth - 1 = 0"
            using minus by (simp add: unat_eq_zero flip: word_unat_eq_iff)
          with True closing c x not_eof s show ?thesis
            unfolding unfold by (auto simp add: Let_def)
        next
          case False
          then have nz: "depth - 1 \<noteq> 0"
            using less.prems(1) unfolding word_unat_eq_iff minus unat_0 by linarith
          have "0 < unat (depth - 1)" "unat (depth - 1) + length (ahead (view ?u)) < 2 ^ 32"
            using False less.prems minus s by auto
          from less.hyps[OF shorter(2) this less.prems(3)] closing c x not_eof s nz minus False
          show ?thesis
            by (simp add: unfold Let_def)
        qed
      next
        case nested
        have plus: "unat (depth + 1) = Suc (unat depth)"
          using less.prems(2) s by (simp add: unat_word_ariths)
        then have "0 < unat (depth + 1)" "unat (depth + 1) + length (ahead (view ?u)) < 2 ^ 32"
          using less.prems s by auto
        from less.hyps[OF shorter(2) this less.prems(3)] nested c x not_eof s plus
        show ?thesis
          by (auto simp: unfold Let_def)
      next
        case other
        have "unat depth + length (ahead (view ?t)) < 2 ^ 32"
          using less.prems s by auto
        from less.hyps[OF shorter(1) less.prems(1) this less.prems(3)] other c x not_eof s
        show ?thesis
          by (auto simp: unfold Let_def)
      qed
    qed
  qed
qed


lemma based_literal_simps [simp]:
  "\<not> based_literal []"
  "\<not> based_literal [a]"
  "based_literal (a # b # ys) \<longleftrightarrow>
     (a = code CHR ''2'' \<or> a = code CHR ''8'') \<and> b = code CHR ''#'' \<or>
     a = code CHR ''1'' \<and> b = code CHR ''6'' \<and> take 1 ys = [code CHR ''#'']"
  by (auto simp: based_literal_def)

lemma scan_sign_returns:
  assumes s: "ahead (view s) = c # ys"
  shows "\<exists>r s'. scan_sign_before_base L token s = (r, s') \<and> (r \<longleftrightarrow> based_literal ys) \<and>
    start (view s') = start (view s) \<and> marked (view s') = Some ys \<and>
    (r \<longrightarrow> symbol (view s') = TokenType_value token)"
proof -
  consider "ys = []" | a where "ys = [a]" | a b where "ys = [a, b]"
    | a b d zs where "ys = a # b # d # zs"
    by (metis neq_Nil_conv)
  then show ?thesis
    by cases (auto simp: scan_sign_before_base_def Let_def lookahead_view s code_def)
qed


lemma scan_unknown_pragma_returns:
  assumes "\<not> iswspace 0" and "length uninit = 16" and s: "ahead (view s) = c # ys"
  shows "\<exists>r s'. scan_unknown_pragma iswspace uninit L s = Some (r, s') \<and> keeps s s' \<and>
    (case pragma_end iswspace ys of
       None \<Rightarrow> \<not> r
     | Some e \<Rightarrow> r \<and> ahead (view s') = e \<and> symbol (view s') = TokenType_value PRAGMA)"
proof -
  let ?zs = "dropWhile iswspace ys"
  obtain s1 where s1: "skip_wspace iswspace L False (advance L s False) = Some s1"
      "ahead (view s1) = ?zs" "keeps s s1"
    using skip_wspace_returns[of iswspace False "advance L s False"] assms by auto
  obtain b s2 where s2: "read_word L \<lparr>word = uninit, word_length = 0, longer = False\<rparr> s1 = Some (b, s2)"
      "holds_word b (takeWhile is_word_char ?zs)" "ahead (view s2) = dropWhile is_word_char ?zs"
      "keeps s1 s2"
    using read_word_returns[OF holds_word_empty[OF assms(2)] list.pred_inject(1), of s1]
    unfolding s1(2) append_Nil by blast
  have known: "is_known_pragma b \<longleftrightarrow> known_word (takeWhile is_word_char ?zs)"
    unfolding known_word_def
    by (rule is_known_pragma_iff[OF s2(2)]) (auto simp: list_all_iff dest: set_takeWhileD)
  obtain r s3 where s3: "pragma_loop L s2 = Some (r, s3)" "keeps s2 s3"
      "case close_pragma (dropWhile is_word_char ?zs) of None \<Rightarrow> \<not> r
       | Some e \<Rightarrow> r \<and> ahead (view s3) = e \<and> symbol (view s3) = TokenType_value PRAGMA"
    using pragma_loop_returns[of s2] unfolding s2(3) by blast
  have def: "scan_unknown_pragma iswspace uninit L s =
      (if is_known_pragma b then Some (False, s2) else pragma_loop L s2)"
    by (simp add: scan_unknown_pragma_def s1(1) s2(1))
  have "keeps s s2" "keeps s s3"
    using s1(3) s2(4) s3(2) by (blast intro: keeps_trans)+
  then show ?thesis
    unfolding def using s3 known by (auto simp: pragma_end_def Let_def)
qed

lemma scan_comment_returns:
  assumes s: "ahead (view s) = c # ys" and "Suc (length ys) < 2 ^ 32"
  shows "\<exists>r s'. scan_comment L valid s = Some (r, s') \<and> keeps s s' \<and>
    (case comment_end (c # ys) of
       None \<Rightarrow> \<not> r
     | Some (token, e) \<Rightarrow> if valid token
         then r \<and> ahead (view s') = e \<and> symbol (view s') = TokenType_value token else \<not> r)"
proof (cases "comment_style c")
  case None
  then show ?thesis
    using lookahead_Cons[OF s] by (auto simp: scan_comment_def comment_end_def split: list.splits)
next
  case (Some style)
  obtain opn cls token where style: "style = (opn, cls, token)"
    by (cases style)
  have nz: "cls \<noteq> 0"
    using Some style by (auto simp: comment_style_def code_def split: if_splits)
  let ?t = "advance L s False"
  have def: "scan_comment L valid s =
      (if \<not> valid token then Some (False, s)
       else if lookahead L ?t \<noteq> code CHR ''*'' then Some (False, ?t)
       else comment_loop L opn cls token 1 (advance L ?t False))"
    using lookahead_Cons[OF s] Some style by (simp add: scan_comment_def Let_def)
  show ?thesis
  proof (cases ys)
    case Nil
    then have "lookahead L ?t = 0"
      using s lookahead_Nil[of ?t] by simp
    then show ?thesis
      unfolding def using Nil Some style by (auto simp: comment_end_def code_def)
  next
    case (Cons x zs)
    then have x: "lookahead L ?t = x" and u: "ahead (view (advance L ?t False)) = zs"
      using s lookahead_Cons[of ?t] by simp_all
    have "unat (1 :: uint32) + length (ahead (view (advance L ?t False))) < 2 ^ 32"
      using u assms(2) Cons by simp
    from comment_loop_returns[OF _ this nz, of opn token] u
    have "\<exists>r s'. comment_loop L opn cls token 1 (advance L ?t False) = Some (r, s') \<and> keeps s s' \<and>
      (case close_comment opn cls 1 zs of None \<Rightarrow> \<not> r
       | Some e \<Rightarrow> r \<and> ahead (view s') = e \<and> symbol (view s') = TokenType_value token)"
      by simp
    then show ?thesis
      unfolding def using x Cons Some style \<open>comment_style c = Some style\<close>
      by (auto simp: comment_end_def split: option.splits)
  qed
qed


text \<open>
  The whole call. It starts where the runtime starts a token: nothing marked, the token starting
  at the current character.
\<close>

lemma scan_returns:
  assumes "wspace_class iswspace" and "length uninit = 16"
    and "length (ahead (view s)) < 2 ^ 32"
    and fresh: "start (view s) = ahead (view s)" "marked (view s) = None"
  shows "\<exists>r s'. tree_sitter_rk_external_scanner_scan iswspace uninit L valid s = Some (r, s') \<and>
    (case scanner_token iswspace valid (ahead (view s)) of
       None \<Rightarrow> \<not> r
     | Some (token, e) \<Rightarrow> r \<and> valid token \<and> symbol (view s') = TokenType_value token \<and>
         start (view s') = dropWhile iswspace (ahead (view s)) \<and> token_end (view s') = e)"
    (is "\<exists>r s'. ?scan = Some (r, s') \<and> ?spec r s'")
proof (cases "\<exists>token. valid token")
  case False
  then have "scanner_token iswspace valid xs = None" for xs
    by (auto simp: scanner_token_def split: list.splits option.splits prod.splits)
  with False show ?thesis
    by (auto simp: tree_sitter_rk_external_scanner_scan_def)
next
  case True
  then have some_valid: "\<not> (\<not> valid C_STYLE_COMMENT \<and> \<not> valid PASCAL_STYLE_COMMENT \<and>
      \<not> valid PRAGMA \<and> \<not> valid MINUS_BEFORE_BASE \<and> \<not> valid PLUS_BEFORE_BASE)"
    by (metis TokenType.exhaust)
  have not_null: "\<not> iswspace 0"
    using assms(1) by (simp add: wspace_class_def)
  let ?xs = "dropWhile iswspace (ahead (view s))"
  obtain s1 where s1: "skip_wspace iswspace L True s = Some s1" "ahead (view s1) = ?xs"
      "marked (view s1) = None" "start (view s1) = ?xs"
    using skip_wspace_returns[where iswspace = iswspace and skip = True and s = s] not_null fresh by auto
  have bound: "length ?xs < 2 ^ 32"
    using assms(3) length_dropWhile_le[of iswspace "ahead (view s)"] by linarith
  show ?thesis
  proof (cases ?xs)
    case Nil
    then have "lookahead L s1 = 0"
      using s1(2) lookahead_Nil by simp
    then have "?scan = Some (False, s1)"
      using s1(1) some_valid
      by (auto simp: tree_sitter_rk_external_scanner_scan_def scan_comment_def comment_style_def
          code_def)
    moreover have "scanner_token iswspace valid (ahead (view s)) = None"
      unfolding scanner_token_def Nil by simp
    ultimately show ?thesis
      by auto
  next
    case (Cons c ys)
    have c: "lookahead L s1 = c" and s1c: "ahead (view s1) = c # ys"
      using Cons s1(2) lookahead_Cons by simp_all
    have scan: "?scan =
        (if c = code CHR ''{'' then
           (if valid PRAGMA then scan_unknown_pragma iswspace uninit L s1 else Some (False, s1))
         else if c = code CHR ''-'' then
           Some (if valid MINUS_BEFORE_BASE then scan_sign_before_base L MINUS_BEFORE_BASE s1
                 else (False, s1))
         else if c = code CHR ''+'' then
           Some (if valid PLUS_BEFORE_BASE then scan_sign_before_base L PLUS_BEFORE_BASE s1
                 else (False, s1))
         else scan_comment L valid s1)"
      using some_valid s1(1) c by (auto simp: tree_sitter_rk_external_scanner_scan_def)
    consider (pragma) "c = code CHR ''{''" | (minus) "c = code CHR ''-''" | (plus) "c = code CHR ''+''"
      | (other) "c \<noteq> code CHR ''{''" "c \<noteq> code CHR ''-''" "c \<noteq> code CHR ''+''"
      by blast
    then show ?thesis
    proof cases
      case pragma
      show ?thesis
        using scan_unknown_pragma_returns[where iswspace = iswspace, OF not_null assms(2) s1c] pragma s1 Cons scan
        by (auto simp: scanner_token_def keeps_def split: option.splits)
    next
      case minus
      show ?thesis
        using scan_sign_returns[OF s1c, of MINUS_BEFORE_BASE] minus s1 Cons scan
        by (auto simp: scanner_token_def)
    next
      case plus
      show ?thesis
        using scan_sign_returns[OF s1c, of PLUS_BEFORE_BASE] plus s1 Cons scan
        by (auto simp: scanner_token_def)
    next
      case other
      have "Suc (length ys) < 2 ^ 32"
        using bound Cons by simp
      from scan_comment_returns[OF s1c this, of valid] show ?thesis
        using other s1 Cons scan
        by (auto simp: scanner_token_def keeps_def split: option.splits if_splits)
    qed
  qed
qed

end

end
