(* ===== verification/Scanner_Properties.thy ===== *)
theory Scanner_Properties
  imports Scanner_Correct
begin

text \<open>
  What the scanner promises, over any lexer that meets the contract: each statement follows from
  \<open>scan_returns\<close> and the specifications, and each has a witness on the lexer over a buffer.
\<close>

lemmas scan_returns_any = lexer_contract.scan_returns

text \<open>A fresh token, and an input of 32-bit length.\<close>

definition scan_ready :: "('s \<Rightarrow> lexer_view) \<Rightarrow> 's \<Rightarrow> code_point list \<Rightarrow> bool" where
  "scan_ready view s xs \<longleftrightarrow> token_ready view s xs \<and> length xs < 2 ^ 32"

lemma scan_ready_buffer: "length xs < 2 ^ 32 \<Longrightarrow> scan_ready id (open_buffer xs) xs"
  by (simp add: scan_ready_def token_ready_buffer)

lemma scan_cases:
  assumes "lexer_contract L view" and "wspace_class iswspace" and "length uninit = 16"
    and "scan_ready view s xs"
  shows "case scanner_token iswspace valid xs of
      None \<Rightarrow> (\<exists>s'. tree_sitter_rk_external_scanner_scan iswspace uninit L valid s = Some (False, s'))
    | Some (token, e) \<Rightarrow> valid token \<and>
        scanned view (tree_sitter_rk_external_scanner_scan iswspace uninit L valid s)
          (TokenType_value token) (dropWhile iswspace xs) e"
  using scan_returns_any[OF assms(1,2,3), of s valid] assms(4)
  by (auto simp: scan_ready_def token_ready_def scanned_def split: option.splits)

lemma scanned_iff:
  assumes "lexer_contract L view" and "wspace_class iswspace" and "length uninit = 16"
    and "scan_ready view s xs"
  shows "scanned view (tree_sitter_rk_external_scanner_scan iswspace uninit L valid s) y b e \<longleftrightarrow>
    (\<exists>token. scanner_token iswspace valid xs = Some (token, e) \<and> y = TokenType_value token \<and>
       b = dropWhile iswspace xs)"
  using scan_cases[OF assms, of valid]
  by (auto simp: scanned_def split: option.splits)

lemma dropWhile_space_prefix:
  assumes "list_all iswspace ws" and "\<not> iswspace c"
  shows "dropWhile iswspace (ws @ c # xs) = c # xs"
  using assms by (induction ws) auto

lemma dropWhile_space_code:
  assumes "wspace_class iswspace" and "33 \<le> c" "c \<le> 126" and "list_all iswspace ws"
  shows "dropWhile iswspace (ws @ c # xs) = c # xs"
  by (rule dropWhile_space_prefix[OF assms(4) wspace_class.not_iswspace_graphic[OF assms(1-3)]])

text \<open>The specified token is a non-empty prefix of the input after the white space.\<close>

lemma close_pragma_suffix: "close_pragma xs = Some e \<Longrightarrow> \<exists>t. xs = t @ e"
  unfolding close_pragma_iff by (metis append.assoc append_Cons append_Nil)

lemma scanner_token_suffix:
  assumes "scanner_token iswspace valid xs = Some (token, e)"
  shows "\<exists>t. t \<noteq> [] \<and> dropWhile iswspace xs = t @ e"
proof (cases "dropWhile iswspace xs")
  case Nil
  with assms show ?thesis by (simp add: scanner_token_def)
next
  case (Cons c ys)
  have pragma: "\<exists>t. ys = t @ e" if "pragma_end iswspace ys = Some e"
  proof -
    let ?zs = "dropWhile iswspace ys"
    have "\<exists>t. dropWhile is_word_char ?zs = t @ e"
      using that close_pragma_suffix by (auto simp: pragma_end_def Let_def split: if_splits)
    then obtain t where "ys = takeWhile iswspace ys @ takeWhile is_word_char ?zs @ t @ e"
      by (metis takeWhile_dropWhile_id)
    then show ?thesis by (metis append.assoc)
  qed
  have comment: "\<exists>t. ys = t @ e" if "comment_end (c # ys) = Some (token, e)"
    using that close_comment_suffix
    by (fastforce simp: comment_end_def split: list.splits option.splits if_splits)
  have "\<exists>t. ys = t @ e"
    using assms Cons pragma comment
    by (auto simp: scanner_token_def split: if_splits option.splits)
  then show ?thesis
    using Cons by (metis append_Cons list.distinct(1))
qed

section \<open>The whole call\<close>

text \<open>
  C1. For every lexer that meets the documented contract and every input, the scanner returns. It
  returns true exactly when the specification finds a token after the white space that is in
  \<open>valid_symbols\<close>; its type, its first character and its end are the specification's.
\<close>

theorem scanner_refines_specification:
  assumes "lexer_contract L view" and "wspace_class iswspace" and "length uninit = 16"
    and "scan_ready view s xs"
  shows "case scanner_token iswspace valid xs of
      None \<Rightarrow> (\<exists>s'. tree_sitter_rk_external_scanner_scan iswspace uninit L valid s = Some (False, s'))
    | Some (token, e) \<Rightarrow> valid token \<and>
        scanned view (tree_sitter_rk_external_scanner_scan iswspace uninit L valid s)
          (TokenType_value token) (dropWhile iswspace xs) e"
  by (rule scan_cases[OF assms])

theorem scanner_refines_specification_witness:
  "scanned id
     (tree_sitter_rk_external_scanner_scan c_iswspace (replicate 16 0) buffer_lexer (\<lambda>_. True)
       (open_buffer (map code '' (* (* x *) *) y'')))
     (TokenType_value PASCAL_STYLE_COMMENT) (map code ''(* (* x *) *) y'') (map code '' y'')"
proof -
  have "scanner_token c_iswspace (\<lambda>_. True) (map code '' (* (* x *) *) y'') =
      Some (PASCAL_STYLE_COMMENT, map code '' y'')"
    by (simp add: scanner_token_def comment_end_def comment_style_def char_simps)
  moreover have "dropWhile c_iswspace (map code '' (* (* x *) *) y'') = map code ''(* (* x *) *) y''"
    by (simp add: char_simps)
  ultimately show ?thesis
    using scanner_refines_specification[OF buffer.lexer_contract_axioms c_space.wspace_class_axioms
        length_replicate scan_ready_buffer, of "map code '' (* (* x *) *) y''" 0 "\<lambda>_. True"]
    by simp
qed

section \<open>Comments\<close>

lemma comment_found:
  assumes "lexer_contract L view" and "wspace_class iswspace" and "length uninit = 16"
    and "scan_ready view s (ws @ c # code CHR ''*'' # xs)" and "list_all iswspace ws"
    and "comment_style c = Some (opn, cls, token)" and "valid token"
  shows "scanned view (tree_sitter_rk_external_scanner_scan iswspace uninit L valid s)
      (TokenType_value token) (c # code CHR ''*'' # xs) e \<longleftrightarrow>
    (\<exists>body us. delimiters opn cls xs = body @ Closing # us \<and> balanced body \<and> e = spell opn cls us)"
proof -
  have "c = code CHR ''('' \<or> c = code CHR ''/''"
    using assms(6) by (auto simp: comment_style_def split: if_splits)
  then have range: "33 \<le> c" "c \<le> 126"
    and tok: "scanner_token iswspace valid (ws @ c # code CHR ''*'' # xs) =
      map_option (Pair token) (close_comment opn cls 1 xs)"
    using assms(6,7) dropWhile_space_code[OF assms(2) _ _ assms(5), of c]
    by (auto simp: scanner_token_def comment_end_def code_def split: option.splits)
  show ?thesis
    unfolding scanned_iff[OF assms(1-4)] tok dropWhile_space_code[OF assms(2) range assms(5)]
    by (simp add: close_comment_iff[simplified])
qed

text \<open>
  C7. After white space and the two characters that open a comment of either style, the scanner
  finds a comment exactly when the text that follows begins with a balanced sequence of nested
  comments and text and then the closing delimiter; the token ends after that delimiter, at any
  depth of nesting.
\<close>

theorem comment_token_iff_balanced:
  assumes "lexer_contract L view" and "wspace_class iswspace" and "length uninit = 16"
    and "scan_ready view s (ws @ c # code CHR ''*'' # xs)" and "list_all iswspace ws"
    and "comment_style c = Some (opn, cls, token)" and "valid token"
  shows "scanned view (tree_sitter_rk_external_scanner_scan iswspace uninit L valid s)
      (TokenType_value token) (c # code CHR ''*'' # xs) e \<longleftrightarrow>
    (\<exists>body us. delimiters opn cls xs = body @ Closing # us \<and> balanced body \<and> e = spell opn cls us)"
  using assms by (rule comment_found)

theorem comment_token_iff_balanced_witness:
  "scanned id
     (tree_sitter_rk_external_scanner_scan c_iswspace (replicate 16 0) buffer_lexer (\<lambda>_. True)
       (open_buffer ([] @ code CHR ''/'' # code CHR ''*'' # map code ''/*b*/c*/ z'')))
     (TokenType_value C_STYLE_COMMENT) (code CHR ''/'' # code CHR ''*'' # map code ''/*b*/c*/ z'')
     (map code '' z'')"
proof -
  let ?slash = "code CHR ''/''"
  let ?body = "[Opening, Text (code CHR ''b''), Closing, Text (code CHR ''c'')]"
  have "balanced ([Opening] @ [Text (code CHR ''b'')] @ Closing # [Text (code CHR ''c'')])"
    using balanced_nested[of "[Text (code CHR ''b'')]" "[Text (code CHR ''c'')]"]
    by (auto intro: balanced.intros)
  then have "balanced ?body" by simp
  moreover have "delimiters ?slash ?slash (map code ''/*b*/c*/ z'') =
      ?body @ Closing # [Text (code CHR '' ''), Text (code CHR ''z'')]"
    by (simp add: code_def)
  ultimately have "\<exists>body us. delimiters ?slash ?slash (map code ''/*b*/c*/ z'') = body @ Closing # us \<and>
      balanced body \<and> map code '' z'' = spell ?slash ?slash us"
    by (intro exI[of _ ?body] exI[of _ "[Text (code CHR '' ''), Text (code CHR ''z'')]"]) simp
  then show ?thesis
    by (subst comment_token_iff_balanced[where opn = ?slash and cls = ?slash,
          OF buffer.lexer_contract_axioms c_space.wspace_class_axioms length_replicate
          scan_ready_buffer])
      (simp_all add: comment_style_def del: delimiters.simps spell.simps)
qed

section \<open>Pragmas\<close>

lemma pragma_found:
  assumes "lexer_contract L view" and "wspace_class iswspace" and "length uninit = 16"
    and "scan_ready view s (ws @ code CHR ''{'' # vs @ w @ xs)"
    and "list_all iswspace ws" and "list_all iswspace vs" and "\<not> iswspace (hd (w @ xs @ [0]))"
    and "list_all is_word_char w" and "\<not> is_word_char (hd (xs @ [0]))" and "valid PRAGMA"
  shows "scanned view (tree_sitter_rk_external_scanner_scan iswspace uninit L valid s)
      (TokenType_value PRAGMA) (code CHR ''{'' # vs @ w @ xs) e \<longleftrightarrow>
    \<not> known_word w \<and> (\<exists>body. pragma_body body \<and> xs = body @ code CHR ''}'' # e)"
proof -
  have spaces: "dropWhile iswspace (vs @ w @ xs) = w @ xs"
  proof (cases "w @ xs")
    case Nil
    with assms(6) show ?thesis by (simp add: list_all_iff)
  next
    case (Cons a ys)
    then have "hd (w @ xs @ [0]) = a"
      by (metis append_assoc append_Cons list.sel(1))
    with Cons assms(6,7) show ?thesis by (simp add: dropWhile_space_prefix)
  qed
  have word: "takeWhile is_word_char (w @ xs) = w" "dropWhile is_word_char (w @ xs) = xs"
    using assms(8,9) by (cases xs; simp add: list_all_iff takeWhile_append2 dropWhile_append2)+
  have brace: "33 \<le> code CHR ''{''" "code CHR ''{'' \<le> 126"
    by (simp_all add: code_def)
  note skipped = dropWhile_space_code[OF assms(2) brace assms(5)]
  have "scanner_token iswspace valid (ws @ code CHR ''{'' # vs @ w @ xs) =
      (if known_word w then None else map_option (Pair PRAGMA) (close_pragma xs))"
    using assms(10) skipped by (auto simp: scanner_token_def pragma_end_def spaces word split: option.splits)
  then show ?thesis
    unfolding scanned_iff[OF assms(1-4)] skipped by (auto simp: close_pragma_iff)
qed

text \<open>
  C8. A pragma whose first word the grammar knows is no token of the scanner; any other is one
  token, which ends after the first \<open>}\<close> outside the quoted strings of its body, and none when the
  body has no such end.
\<close>

theorem pragma_token_iff_unknown:
  assumes "lexer_contract L view" and "wspace_class iswspace" and "length uninit = 16"
    and "scan_ready view s (ws @ code CHR ''{'' # vs @ w @ xs)"
    and "list_all iswspace ws" and "list_all iswspace vs" and "\<not> iswspace (hd (w @ xs @ [0]))"
    and "list_all is_word_char w" and "\<not> is_word_char (hd (xs @ [0]))" and "valid PRAGMA"
  shows "scanned view (tree_sitter_rk_external_scanner_scan iswspace uninit L valid s)
      (TokenType_value PRAGMA) (code CHR ''{'' # vs @ w @ xs) e \<longleftrightarrow>
    \<not> known_word w \<and> (\<exists>body. pragma_body body \<and> xs = body @ code CHR ''}'' # e)"
  using assms by (rule pragma_found)

theorem pragma_token_iff_unknown_witness:
  "scanned id
     (tree_sitter_rk_external_scanner_scan c_iswspace (replicate 16 0) buffer_lexer (\<lambda>_. True)
       (open_buffer ([] @ code CHR ''{'' # [] @ map code ''attribute'' @
         [code CHR '' '', code CHR 0x22, code CHR ''}'', code CHR 0x22, code CHR ''}'', code CHR ''x''])))
     (TokenType_value PRAGMA)
     (code CHR ''{'' # [] @ map code ''attribute'' @
       [code CHR '' '', code CHR 0x22, code CHR ''}'', code CHR 0x22, code CHR ''}'', code CHR ''x''])
     [code CHR ''x'']"
proof -
  let ?q = "code CHR 0x22"
  have "quoted ?q [code CHR ''}'']"
    by (intro quoted.intros) (simp_all add: code_def)
  then have "pragma_body (code CHR '' '' # ?q # [code CHR ''}''] @ ?q # [])"
    by (intro pragma_body.intros) (simp_all add: code_def)
  then have body: "pragma_body [code CHR '' '', ?q, code CHR ''}'', ?q]"
    by simp
  show ?thesis
    by (subst pragma_token_iff_unknown[OF buffer.lexer_contract_axioms
          c_space.wspace_class_axioms length_replicate scan_ready_buffer])
      (use body in \<open>auto simp: known_word_def KNOWN_PRAGMAS_def char_simps\<close>)
qed

section \<open>The word buffer\<close>

text \<open>
  C10. The loop that reads the first word of a pragma never writes outside the 16 bytes of \<open>word\<close>:
  whatever it reads, the array keeps its length, the position of the final null is within it, and
  the answer to "is it a known name" depends on the whole word and not on the bytes the array held
  before.
\<close>

theorem word_buffer_safe:
  assumes "length uninit = 16" and "list_all is_word_char ws"
  shows "length (word (foldl push_word_char \<lparr>word = uninit, word_length = 0, longer = False\<rparr> ws)) = 16 \<and>
    word_length (foldl push_word_char \<lparr>word = uninit, word_length = 0, longer = False\<rparr> ws) < 16 \<and>
    (is_known_pragma (foldl push_word_char \<lparr>word = uninit, word_length = 0, longer = False\<rparr> ws)
      \<longleftrightarrow> ws \<in> map code ` set KNOWN_PRAGMAS)"
proof -
  have "holds_word (foldl push_word_char \<lparr>word = uninit, word_length = 0, longer = False\<rparr> ws) ws"
    using assms(2)
  proof (induction ws rule: rev_induct)
    case Nil
    show ?case using holds_word_empty[OF assms(1)] by simp
  next
    case (snoc c ws)
    then show ?case by (simp add: holds_word_push)
  qed
  with is_known_pragma_iff[OF this assms(2)] show ?thesis
    by (auto simp: holds_word_def)
qed

theorem word_buffer_safe_witness:
  "is_known_pragma (foldl push_word_char \<lparr>word = replicate 16 7, word_length = 0, longer = False\<rparr>
      (map code ''must_call''))"
  using word_buffer_safe[of "replicate 16 7" "map code ''must_call''"]
  by (simp add: KNOWN_PRAGMAS_def char_simps del: foldl.simps)

section \<open>Signs\<close>

lemma sign_found:
  assumes "lexer_contract L view" and "wspace_class iswspace" and "length uninit = 16"
    and "scan_ready view s (ws @ c # xs)" and "list_all iswspace ws"
    and "c = code CHR ''-'' \<and> token = MINUS_BEFORE_BASE \<or> c = code CHR ''+'' \<and> token = PLUS_BEFORE_BASE"
    and "valid token"
  shows "scanned view (tree_sitter_rk_external_scanner_scan iswspace uninit L valid s)
      (TokenType_value token) (c # xs) e \<longleftrightarrow>
    e = xs \<and> (\<exists>b \<in> {''2#'', ''8#'', ''16#''}. \<exists>ys. xs = map code b @ ys)"
proof -
  have range: "33 \<le> c" "c \<le> 126"
    using assms(6) by (auto simp: code_def)
  note skipped = dropWhile_space_code[OF assms(2) range assms(5)]
  have "scanner_token iswspace valid (ws @ c # xs) =
      (if based_literal xs then Some (token, xs) else None)"
    using assms(6,7) skipped by (auto simp: scanner_token_def code_def)
  moreover have "based_literal xs \<longleftrightarrow> (\<exists>b \<in> {''2#'', ''8#'', ''16#''}. \<exists>ys. xs = map code b @ ys)"
    unfolding based_literal_def
    by (intro bex_cong refl) (metis append_eq_conv_conj append_take_drop_id length_map)
  ultimately show ?thesis
    unfolding scanned_iff[OF assms(1-4)] skipped by auto
qed

text \<open>
  C9. A sign is a token of the scanner exactly when a based literal follows it, \<open>2#\<close>, \<open>8#\<close> or
  \<open>16#\<close>; the token is then the sign alone, although the scanner has read past it, so the base
  starts the next token. \<open>-16\<close> with no \<open>#\<close> is left to the grammar's own tokens.
\<close>

theorem sign_token_iff_based_literal:
  assumes "lexer_contract L view" and "wspace_class iswspace" and "length uninit = 16"
    and "scan_ready view s (ws @ c # xs)" and "list_all iswspace ws"
    and "c = code CHR ''-'' \<and> token = MINUS_BEFORE_BASE \<or> c = code CHR ''+'' \<and> token = PLUS_BEFORE_BASE"
    and "valid token"
  shows "scanned view (tree_sitter_rk_external_scanner_scan iswspace uninit L valid s)
      (TokenType_value token) (c # xs) e \<longleftrightarrow>
    e = xs \<and> (\<exists>b \<in> {''2#'', ''8#'', ''16#''}. \<exists>ys. xs = map code b @ ys)"
  using assms by (rule sign_found)

theorem sign_token_iff_based_literal_witness:
  "scanned id
     (tree_sitter_rk_external_scanner_scan c_iswspace (replicate 16 0) buffer_lexer (\<lambda>_. True)
       (open_buffer ([] @ code CHR ''-'' # map code ''16#10'')))
     (TokenType_value MINUS_BEFORE_BASE) (code CHR ''-'' # map code ''16#10'') (map code ''16#10'')"
  by (subst sign_token_iff_based_literal[OF buffer.lexer_contract_axioms
        c_space.wspace_class_axioms length_replicate scan_ready_buffer])
    (auto simp: code_def)

section \<open>What a call never does\<close>

text \<open>
  C11. The token of a successful call is one of \<open>valid_symbols\<close>, it holds at least one character, and
  it lies in the input: the white space before it, the token and the rest are the input.
\<close>

theorem scanner_token_within_input:
  assumes "lexer_contract L view" and "wspace_class iswspace" and "length uninit = 16"
    and "scan_ready view s xs"
    and "tree_sitter_rk_external_scanner_scan iswspace uninit L valid s = Some (True, s')"
  shows "(\<exists>token. valid token \<and> symbol (view s') = TokenType_value token) \<and>
    (\<exists>ws t. list_all iswspace ws \<and> t \<noteq> [] \<and> xs = ws @ t @ token_end (view s') \<and>
       start (view s') = t @ token_end (view s'))"
proof -
  have "scanned view (tree_sitter_rk_external_scanner_scan iswspace uninit L valid s)
      (symbol (view s')) (start (view s')) (token_end (view s'))"
    using assms(5) by (simp add: scanned_def)
  then obtain token where tok: "scanner_token iswspace valid xs = Some (token, token_end (view s'))"
      "symbol (view s') = TokenType_value token" "start (view s') = dropWhile iswspace xs"
    unfolding scanned_iff[OF assms(1-4)] by auto
  then have "valid token"
    using scan_cases[OF assms(1-4), of valid] by simp
  moreover obtain t where "t \<noteq> []" "dropWhile iswspace xs = t @ token_end (view s')"
    using scanner_token_suffix[OF tok(1)] by blast
  moreover have "xs = takeWhile iswspace xs @ dropWhile iswspace xs"
    by simp
  moreover have "list_all iswspace (takeWhile iswspace xs)"
    by (auto simp: list_all_iff dest: set_takeWhileD)
  ultimately show ?thesis
    using tok by metis
qed

theorem scanner_token_within_input_witness:
  "\<exists>s'. tree_sitter_rk_external_scanner_scan c_iswspace (replicate 16 0) buffer_lexer (\<lambda>_. True)
      (open_buffer (map code ''+2#1'')) = Some (True, s') \<and>
    (\<exists>ws t. list_all c_iswspace ws \<and> t \<noteq> [] \<and> map code ''+2#1'' = ws @ t @ token_end (id s') \<and>
       start (id s') = t @ token_end (id s'))"
proof -
  have "scanner_token c_iswspace (\<lambda>_. True) (map code ''+2#1'') =
      Some (PLUS_BEFORE_BASE, map code ''2#1'')"
    by (simp add: scanner_token_def char_simps)
  then obtain s' where s': "tree_sitter_rk_external_scanner_scan c_iswspace (replicate 16 0) buffer_lexer
      (\<lambda>_. True) (open_buffer (map code ''+2#1'')) = Some (True, s')"
    using scan_cases[OF buffer.lexer_contract_axioms c_space.wspace_class_axioms length_replicate
        scan_ready_buffer, of "map code ''+2#1''" 0 "\<lambda>_. True"]
    by (auto simp: scanned_def)
  then show ?thesis
    using scanner_token_within_input[OF buffer.lexer_contract_axioms c_space.wspace_class_axioms
        length_replicate scan_ready_buffer s'] by simp
qed

end
