(* ===== verification/Lex_Macros.thy ===== *)
theory Lex_Macros
  imports TSLexer_API Char_Sets
begin

text \<open>
  The lexer macros of \<open>src/crates/tree-sitter/src/tree_sitter/parser.h\<close> and the loop they make of
  the generated functions \<open>ts_lex\<close> and \<open>ts_lex_keywords\<close>.

  A generated function is a \<open>switch\<close> over the lexer's state whose cases are written in the macros
  \<open>ACCEPT_TOKEN\<close>, \<open>ADVANCE\<close>, \<open>SKIP\<close>, \<open>ADVANCE_MAP\<close> and \<open>END_STATE\<close> only, and in \<open>if\<close>s over
  \<open>lookahead\<close> and \<open>eof\<close>. A case is therefore a list of statements, the body of the \<open>switch\<close> a table
  from case labels to them (\<open>Lex_Table\<close>, \<open>Keyword_Table\<close>), and what the macros do is written once,
  here: \<open>run_case\<close> is the body of one case and \<open>lex_loop\<close> the \<open>goto next_state\<close> around the \<open>switch\<close>.
\<close>

section \<open>The statements of a case\<close>

text \<open>
  The conditions as the generated code writes them: \<open>EOF\<close> is the variable \<open>eof\<close>, \<open>EQ c\<close> is
  \<open>lookahead == c\<close>, \<open>BETWEEN a b\<close> is \<open>a <= lookahead && lookahead <= b\<close>, \<open>SET r n\<close> is
  \<open>set_contains(r, n, lookahead)\<close>.
\<close>

datatype lex_cond =
    EOF
  | EQ char
  | NE char
  | BETWEEN char char
  | SET "TSCharacterRange list" uint32
  | OR lex_cond lex_cond
  | AND lex_cond lex_cond

datatype lex_goto = ADVANCE TSStateId | SKIP TSStateId

datatype lex_stmt =
    ACCEPT_TOKEN TSSymbol
  | ADVANCE_MAP "(char \<times> TSStateId) list"
  | IF lex_cond lex_goto

type_synonym lex_case = "lex_stmt list"
type_synonym lex_table = "(TSStateId \<times> lex_case) list"

section \<open>Running a case\<close>

fun holds :: "bool \<Rightarrow> code_point \<Rightarrow> lex_cond \<Rightarrow> bool" where
  "holds at_eof c EOF = at_eof"
| "holds at_eof c (EQ x) = (c = code x)"
| "holds at_eof c (NE x) = (c \<noteq> code x)"
| "holds at_eof c (BETWEEN a b) = (code a \<le> c \<and> c \<le> code b)"
| "holds at_eof c (SET rs n) = (set_contains rs n c = Some True)"
| "holds at_eof c (OR p q) = (holds at_eof c p \<or> holds at_eof c q)"
| "holds at_eof c (AND p q) = (holds at_eof c p \<and> holds at_eof c q)"

text \<open>The loop of \<open>ADVANCE_MAP\<close>: the state of the first pair whose character is the lookahead.\<close>

fun advance_map :: "(char \<times> TSStateId) list \<Rightarrow> code_point \<Rightarrow> TSStateId option" where
  "advance_map [] c = None"
| "advance_map ((x, q) # m) c = (if code x = c then Some q else advance_map m c)"

text \<open>
  The statements in order, up to the first jump: where it goes (\<open>None\<close> at \<open>END_STATE\<close>), the variable
  \<open>result\<close> and the lexer after it. \<open>ACCEPT_TOKEN\<close> sets \<open>result\<close> and the result symbol and marks the end.
\<close>

fun run_case ::
  "'s TSLexer \<Rightarrow> bool \<Rightarrow> code_point \<Rightarrow> lex_case \<Rightarrow> bool \<Rightarrow> 's \<Rightarrow> lex_goto option \<times> bool \<times> 's" where
  "run_case L at_eof c [] result s = (None, result, s)"
| "run_case L at_eof c (ACCEPT_TOKEN y # k) result s =
     run_case L at_eof c k True (mark_end L (set_result_symbol L s y))"
| "run_case L at_eof c (ADVANCE_MAP m # k) result s =
     (case advance_map m c of
        Some q \<Rightarrow> (Some (ADVANCE q), result, s)
      | None \<Rightarrow> run_case L at_eof c k result s)"
| "run_case L at_eof c (IF p g # k) result s =
     (if holds at_eof c p then (Some g, result, s) else run_case L at_eof c k result s)"

primrec goto_state :: "lex_goto \<Rightarrow> TSStateId" where
  "goto_state (ADVANCE q) = q"
| "goto_state (SKIP q) = q"

primrec goto_skip :: "lex_goto \<Rightarrow> bool" where
  "goto_skip (ADVANCE q) = False"
| "goto_skip (SKIP q) = True"

text \<open>
  \<open>START_LEXER\<close>, the \<open>switch\<close> and \<open>goto next_state\<close>. A label the table lacks is the \<open>default\<close> case,
  \<open>return false\<close>. \<open>None\<close> is a run that does not return.
\<close>

partial_function (option) lex_loop ::
  "'s TSLexer \<Rightarrow> lex_table \<Rightarrow> TSStateId \<Rightarrow> bool \<Rightarrow> 's \<Rightarrow> (bool \<times> 's) option" where
  "lex_loop L table state result s =
     (case map_of table state of
        None \<Rightarrow> Some (False, s)
      | Some stmts \<Rightarrow>
          (case run_case L (eof L s) (lookahead L s) stmts result s of
             (None, result', s') \<Rightarrow> Some (result', s')
           | (Some g, result', s') \<Rightarrow>
               lex_loop L table (goto_state g) result' (advance L s' (goto_skip g))))"

definition start_lexer :: "'s TSLexer \<Rightarrow> lex_table \<Rightarrow> TSStateId \<Rightarrow> 's \<Rightarrow> (bool \<times> 's) option" where
  "start_lexer L table state s = lex_loop L table state False s"

end
