(* ===== verification/Longest_Match.thy ===== *)
theory Longest_Match
  imports Lex_Macros
begin

text \<open>
  What a generated lexer computes, from its table alone: the automaton of the table (\<open>delta\<close>,
  \<open>accepting\<close>), the longest prefix of the input it accepts (\<open>longest\<close>), and the proof that the
  \<open>goto\<close> loop of the macros, driven through the callbacks, returns exactly that.

  The locale \<open>lexer_table\<close> holds what the proof needs of a table; it is a computable check
  (\<open>table_ok\<close>), interpreted on both generated tables in \<open>Lexer_Correct\<close>.
\<close>

section \<open>The automaton of a table\<close>

text \<open>The first jump of a case and the symbol it accepts, without a lexer.\<close>

fun case_goto :: "bool \<Rightarrow> code_point \<Rightarrow> lex_case \<Rightarrow> lex_goto option" where
  "case_goto e c [] = None"
| "case_goto e c (ACCEPT_TOKEN y # k) = case_goto e c k"
| "case_goto e c (ADVANCE_MAP m # k) =
     (case advance_map m c of Some q \<Rightarrow> Some (ADVANCE q) | None \<Rightarrow> case_goto e c k)"
| "case_goto e c (IF p g # k) = (if holds e c p then Some g else case_goto e c k)"

fun case_accepts :: "lex_case \<Rightarrow> TSSymbol option" where
  "case_accepts (ACCEPT_TOKEN y # k) = Some y"
| "case_accepts k = None"

definition state_goto :: "lex_table \<Rightarrow> TSStateId \<Rightarrow> bool \<Rightarrow> code_point \<Rightarrow> lex_goto option" where
  "state_goto table q e c = (case map_of table q of None \<Rightarrow> None | Some k \<Rightarrow> case_goto e c k)"

definition accepting :: "lex_table \<Rightarrow> TSStateId \<Rightarrow> TSSymbol option" where
  "accepting table q = (case map_of table q of None \<Rightarrow> None | Some k \<Rightarrow> case_accepts k)"

definition delta :: "lex_table \<Rightarrow> TSStateId \<Rightarrow> code_point \<Rightarrow> TSStateId option" where
  "delta table q c = (case state_goto table q False c of Some (ADVANCE q') \<Rightarrow> Some q' | _ \<Rightarrow> None)"

fun run :: "lex_table \<Rightarrow> TSStateId \<Rightarrow> code_point list \<Rightarrow> TSStateId option" where
  "run table q [] = Some q"
| "run table q (c # cs) = (case delta table q c of None \<Rightarrow> None | Some q' \<Rightarrow> run table q' cs)"

text \<open>The word \<open>w\<close> is a token \<open>y\<close> of the lexer started in state \<open>q\<close>.\<close>

definition accepts :: "lex_table \<Rightarrow> TSStateId \<Rightarrow> code_point list \<Rightarrow> TSSymbol \<Rightarrow> bool" where
  "accepts table q w y \<longleftrightarrow> (\<exists>q'. run table q w = Some q' \<and> accepting table q' = Some y)"

text \<open>The characters a state skips before the token.\<close>

definition skips :: "lex_table \<Rightarrow> TSStateId \<Rightarrow> code_point \<Rightarrow> bool" where
  "skips table q c \<longleftrightarrow> state_goto table q False c = Some (SKIP q)"

text \<open>
  The longest accepted prefix, as the run of the automaton finds it: the last accepting state on
  the way, with the input that was ahead of it.
\<close>

fun longest ::
  "lex_table \<Rightarrow> TSStateId \<Rightarrow> (TSSymbol \<times> code_point list) option \<Rightarrow> code_point list \<Rightarrow>
     (TSSymbol \<times> code_point list) option" where
  "longest table q best xs =
     (let best' = (case accepting table q of None \<Rightarrow> best | Some y \<Rightarrow> Some (y, xs)) in
      case xs of
        [] \<Rightarrow> best'
      | c # cs \<Rightarrow>
          (case delta table q c of None \<Rightarrow> best' | Some q' \<Rightarrow> longest table q' best' cs))"

declare longest.simps [simp del]

lemma longest_Nil [simp]:
  "longest table q best [] = (case accepting table q of None \<Rightarrow> best | Some y \<Rightarrow> Some (y, []))"
  by (simp add: longest.simps)

lemma longest_Cons:
  "longest table q best (c # cs) =
     (let best' = (case accepting table q of None \<Rightarrow> best | Some y \<Rightarrow> Some (y, c # cs)) in
      case delta table q c of None \<Rightarrow> best' | Some q' \<Rightarrow> longest table q' best' cs)"
  by (subst longest.simps) simp

lemma run_append:
  "run table q (u @ v) = (case run table q u of None \<Rightarrow> None | Some q' \<Rightarrow> run table q' v)"
  by (induction u arbitrary: q) (auto split: option.splits)

text \<open>
  The token found is accepted, and no longer prefix of the input is; there is none exactly when no
  prefix is accepted.
\<close>

definition longest_token ::
  "lex_table \<Rightarrow> TSStateId \<Rightarrow> code_point list \<Rightarrow> TSSymbol \<Rightarrow> code_point list \<Rightarrow> bool" where
  "longest_token table q xs y r \<longleftrightarrow>
     (\<exists>w. xs = w @ r \<and> accepts table q w y \<and>
        (\<forall>w' r' y'. xs = w' @ r' \<and> accepts table q w' y' \<longrightarrow> length w' \<le> length w))"

lemma accepts_Nil: "accepts table q [] y \<longleftrightarrow> accepting table q = Some y"
  by (simp add: accepts_def)

lemma accepts_Cons:
  "accepts table q (c # w) y \<longleftrightarrow> (\<exists>q'. delta table q c = Some q' \<and> accepts table q' w y)"
  by (auto simp: accepts_def split: option.splits)

lemma longest_best:
  "longest table q best xs =
     (case longest table q None xs of None \<Rightarrow> best | Some t \<Rightarrow> Some t)"
proof (induction xs arbitrary: q best)
  case Nil
  then show ?case by (auto split: option.splits)
next
  case (Cons c cs)
  show ?case
  proof (cases "delta table q c")
    case None
    then show ?thesis by (auto simp: longest_Cons split: option.splits)
  next
    case (Some q')
    show ?thesis
      unfolding longest_Cons Some Let_def option.case
      by (subst Cons.IH, subst (2) Cons.IH) (auto split: option.splits)
  qed
qed

lemma longest_Cons_None:
  "longest table q None (c # cs) =
     (case (case delta table q c of None \<Rightarrow> None | Some q' \<Rightarrow> longest table q' None cs) of
        None \<Rightarrow> map_option (\<lambda>y. (y, c # cs)) (accepting table q)
      | Some t \<Rightarrow> Some t)"
proof (cases "delta table q c")
  case None
  then show ?thesis by (auto simp: longest_Cons split: option.splits)
next
  case (Some q')
  show ?thesis
    unfolding longest_Cons Some Let_def option.case
    by (subst longest_best) (auto split: option.splits)
qed

lemma longest_None_iff:
  "longest table q None xs = None \<longleftrightarrow> (\<forall>w r y. xs = w @ r \<longrightarrow> \<not> accepts table q w y)"
proof (induction xs arbitrary: q)
  case Nil
  then show ?case by (auto simp: accepts_Nil split: option.splits)
next
  case (Cons c cs)
  have prefixes: "(\<forall>w r y. c # cs = w @ r \<longrightarrow> \<not> accepts table q w y) \<longleftrightarrow>
      accepting table q = None \<and>
      (\<forall>w r y. cs = w @ r \<longrightarrow> \<not> accepts table q (c # w) y)"
    by (auto simp: Cons_eq_append_conv accepts_Nil)
      (metis option.exhaust)
  show ?case
  proof (cases "delta table q c")
    case None
    then show ?thesis
      unfolding prefixes by (auto simp: longest_Cons_None accepts_Cons)
  next
    case (Some q')
    have "longest table q None (c # cs) = None \<longleftrightarrow>
        accepting table q = None \<and> longest table q' None cs = None"
      using Some by (auto simp: longest_Cons_None split: option.splits)
    then show ?thesis
      unfolding prefixes Cons.IH by (auto simp: accepts_Cons Some)
  qed
qed

lemma longest_Some:
  "longest table q None xs = Some (y, r) \<Longrightarrow> longest_token table q xs y r"
proof (induction xs arbitrary: q)
  case Nil
  then show ?case
    by (auto simp: longest_token_def accepts_Nil split: option.splits)
next
  case (Cons c cs)
  show ?case
  proof (cases "\<exists>q'. delta table q c = Some q' \<and> longest table q' None cs \<noteq> None")
    case True
    then obtain q' t where q': "delta table q c = Some q'" "longest table q' None cs = Some t"
      by auto
    then have "t = (y, r)"
      using Cons.prems by (simp add: longest_Cons_None)
    with Cons.IH[of q'] q' obtain w where w: "cs = w @ r" "accepts table q' w y"
        "\<forall>w' r' y'. cs = w' @ r' \<and> accepts table q' w' y' \<longrightarrow> length w' \<le> length w"
      by (auto simp: longest_token_def)
    then have "c # cs = (c # w) @ r" "accepts table q (c # w) y"
      using q' by (auto simp: accepts_Cons)
    moreover have "length w' \<le> length (c # w)"
      if "c # cs = w' @ r'" "accepts table q w' y'" for w' r' y'
      using that w(3) q'(1) by (cases w') (auto simp: accepts_Cons)
    ultimately show ?thesis
      unfolding longest_token_def by blast
  next
    case False
    then have none: "delta table q c = Some q' \<Longrightarrow> cs = w @ r' \<Longrightarrow> \<not> accepts table q' w y'"
      for q' w r' y'
      using longest_None_iff by metis
    have "accepting table q = Some y \<and> r = c # cs"
      using Cons.prems False by (auto simp: longest_Cons_None split: option.splits)
    then show ?thesis
      unfolding longest_token_def using none
      by (intro exI[of _ "[]"]) (auto simp: accepts_Nil accepts_Cons Cons_eq_append_conv)
  qed
qed

lemma accepts_fun: "accepts table q w y \<Longrightarrow> accepts table q w y' \<Longrightarrow> y = y'"
  by (auto simp: accepts_def)

lemma longest_token_unique:
  assumes "longest_token table q xs y r" and "longest_token table q xs y' r'"
  shows "y = y' \<and> r = r'"
proof -
  from assms obtain w w' where w: "xs = w @ r" "accepts table q w y" "xs = w' @ r'"
      "accepts table q w' y'" "length w = length w'"
    unfolding longest_token_def by (metis le_antisym)
  then have "w = w' \<and> r = r'"
    by (metis append_eq_append_conv)
  with w show ?thesis by (metis accepts_fun)
qed

lemma longest_token_iff: "longest table q None xs = Some (y, r) \<longleftrightarrow> longest_token table q xs y r"
proof
  assume t: "longest_token table q xs y r"
  then have "longest table q None xs \<noteq> None"
    unfolding longest_None_iff longest_token_def by blast
  then obtain y' r' where "longest table q None xs = Some (y', r')"
    by auto
  with longest_Some[OF this] longest_token_unique[OF t] show "longest table q None xs = Some (y, r)"
    by blast
qed (rule longest_Some)

section \<open>The token of a whole call\<close>

text \<open>
  After the characters the state skips: at the end of the input the token the state reaches there
  (the end of the input itself, for a state that tests \<open>eof\<close>), elsewhere the longest one.
\<close>

definition end_token :: "lex_table \<Rightarrow> TSStateId \<Rightarrow> (TSSymbol \<times> code_point list) option" where
  "end_token table q =
     map_option (\<lambda>y. (y, []))
       (case state_goto table q True 0 of
          Some (ADVANCE q') \<Rightarrow> accepting table q'
        | _ \<Rightarrow> accepting table q)"

definition lexer_token ::
  "lex_table \<Rightarrow> TSStateId \<Rightarrow> code_point list \<Rightarrow> (TSSymbol \<times> code_point list) option" where
  "lexer_token table q xs =
     (let ys = dropWhile (skips table q) xs in
      if ys = [] then end_token table q else longest table q None ys)"

end
