(* ===== verification/Lexer_Loop.thy ===== *)
theory Lexer_Loop
  imports Longest_Match
begin

text \<open>
  The \<open>goto\<close> loop of a generated lexer against \<open>longest\<close>. The locale \<open>lexer_table\<close> asks of a
  table what every lexer tree-sitter generates satisfies, as a check that computes: the case labels
  are \<open>0, ..., n - 1\<close> and every jump leads to one of them; only the start states skip characters, to
  themselves, and no jump leads back to one; a case accepts in its first statement or not at all;
  and at the end of the input no case jumps, but for the start states that go to the state which
  accepts the end.
\<close>

section \<open>The check of a table\<close>

text \<open>The two character sets the tables use.\<close>

definition known_set :: "TSCharacterRange list \<Rightarrow> uint32 \<Rightarrow> bool" where
  "known_set rs n \<longleftrightarrow>
     rs = sym_identifier_character_set_1 \<and> n = 685 \<or> rs = sym_identifier_character_set_2 \<and> n = 800"

text \<open>A condition that cannot hold at the end of the input, where \<open>lookahead\<close> is 0.\<close>

fun dead_at_end :: "lex_cond \<Rightarrow> bool" where
  "dead_at_end EOF = False"
| "dead_at_end (EQ x) = (x \<noteq> CHR 0x00)"
| "dead_at_end (NE x) = (x = CHR 0x00)"
| "dead_at_end (BETWEEN a b) = (a \<noteq> CHR 0x00)"
| "dead_at_end (SET rs n) = known_set rs n"
| "dead_at_end (OR p q) = (dead_at_end p \<and> dead_at_end q)"
| "dead_at_end (AND p q) = (dead_at_end p \<or> dead_at_end q)"

fun stmt_dead_at_end :: "lex_stmt \<Rightarrow> bool" where
  "stmt_dead_at_end (ACCEPT_TOKEN y) = True"
| "stmt_dead_at_end (ADVANCE_MAP m) = list_all (\<lambda>(x, q). x \<noteq> CHR 0x00) m"
| "stmt_dead_at_end (IF p g) = dead_at_end p"

fun is_accept :: "lex_stmt \<Rightarrow> bool" where
  "is_accept (ACCEPT_TOKEN y) = True"
| "is_accept (ADVANCE_MAP m) = False"
| "is_accept (IF p g) = False"

definition accept_first :: "lex_case \<Rightarrow> bool" where
  "accept_first k \<longleftrightarrow> list_all (\<lambda>st. \<not> is_accept st) (tl k)"

text \<open>Where a statement can go: the targets of its \<open>ADVANCE\<close>s, and those of its \<open>SKIP\<close>s.\<close>

fun advance_targets :: "lex_stmt \<Rightarrow> TSStateId list" where
  "advance_targets (ACCEPT_TOKEN y) = []"
| "advance_targets (ADVANCE_MAP m) = map snd m"
| "advance_targets (IF p (ADVANCE q)) = [q]"
| "advance_targets (IF p (SKIP q)) = []"

fun skip_targets :: "lex_stmt \<Rightarrow> TSStateId list" where
  "skip_targets (IF p (SKIP q)) = [q]"
| "skip_targets st = []"

definition token_case :: "lex_case \<Rightarrow> bool" where
  "token_case k \<longleftrightarrow> list_all (\<lambda>st. stmt_dead_at_end st \<and> skip_targets st = []) k"

text \<open>
  A start case accepts nothing and skips to itself; after an optional first \<open>if (eof)\<close> it is dead
  at the end of the input.
\<close>

fun after_eof_test :: "lex_case \<Rightarrow> lex_case" where
  "after_eof_test (IF EOF (ADVANCE q) # k) = k"
| "after_eof_test k = k"

definition start_case :: "TSStateId \<Rightarrow> lex_case \<Rightarrow> bool" where
  "start_case q k \<longleftrightarrow>
     list_all (\<lambda>st. \<not> is_accept st \<and> list_all (\<lambda>q'. q' = q) (skip_targets st)) k \<and>
     list_all stmt_dead_at_end (after_eof_test k)"

definition case_ok :: "nat \<Rightarrow> TSStateId list \<Rightarrow> TSStateId \<Rightarrow> lex_case \<Rightarrow> bool" where
  "case_ok n starts q k \<longleftrightarrow>
     accept_first k \<and>
     (if List.member starts q then start_case q k else token_case k) \<and>
     list_all (\<lambda>st. list_all (\<lambda>q'. q' < n \<and> \<not> List.member starts q') (advance_targets st)) k"

definition table_ok :: "nat \<Rightarrow> TSStateId list \<Rightarrow> lex_table \<Rightarrow> bool" where
  "table_ok n starts table \<longleftrightarrow>
     map fst table = [0..<n] \<and> list_all (\<lambda>(q, k). case_ok n starts q k) table"

section \<open>One case\<close>

lemma zero_not_in_known_set:
  assumes "known_set rs n"
  shows "set_contains rs n 0 = Some False"
proof -
  have "rs = sym_identifier_character_set_1 \<or> rs = sym_identifier_character_set_2"
    using assms by (auto simp: known_set_def)
  moreover have "\<forall>r \<in> set sym_identifier_character_set_1. 0 < fst r"
    using character_set_1_ascending ascending_bound by blast
  moreover have "\<forall>r \<in> set sym_identifier_character_set_2. 0 < fst r"
    using character_set_2_ascending ascending_bound by blast
  ultimately have "\<not> (\<exists>r \<in> set rs. in_range 0 r)"
    by (auto simp: in_range_def)
  moreover have "ordered_ranges rs" "unat n = length rs" "length rs = 685 \<or> length rs = 800"
    using assms character_set_1_ordered character_set_2_ordered
      character_set_1_length character_set_2_length
    by (auto simp: known_set_def)
  moreover from this have "rs \<noteq> []"
    by auto
  ultimately show ?thesis
    by (simp add: set_contains_ordered)
qed

lemma dead_at_end_holds: "dead_at_end p \<Longrightarrow> \<not> holds e 0 p"
proof (induction p)
  case (EQ x)
  then show ?case using code_0_iff[of x] by auto
next
  case (NE x)
  then show ?case using code_0_iff[of x] by auto
next
  case (BETWEEN a b)
  then show ?case using code_pos_iff[of a] by auto
next
  case (SET rs n)
  then show ?case by (simp add: zero_not_in_known_set)
qed auto

lemma advance_map_end: "list_all (\<lambda>(x, q). x \<noteq> CHR 0x00) m \<Longrightarrow> advance_map m 0 = None"
  by (induction m "0 :: code_point" rule: advance_map.induct) (auto simp: code_0_iff)

lemma stmts_dead_at_end: "list_all stmt_dead_at_end k \<Longrightarrow> case_goto e 0 k = None"
  by (induction e "0 :: code_point" k rule: case_goto.induct)
    (auto simp: advance_map_end dead_at_end_holds)

text \<open>Where a case jumps is one of the targets its statements name.\<close>

lemma advance_map_target: "advance_map m c = Some q \<Longrightarrow> q \<in> snd ` set m"
  by (induction m c rule: advance_map.induct) (auto split: if_splits)

lemma case_goto_ADVANCE:
  "case_goto e c k = Some (ADVANCE q) \<Longrightarrow> \<exists>st \<in> set k. q \<in> set (advance_targets st)"
  by (induction e c k rule: case_goto.induct)
    (auto dest: advance_map_target split: option.splits if_splits)

lemma case_goto_SKIP:
  "case_goto e c k = Some (SKIP q) \<Longrightarrow> \<exists>st \<in> set k. q \<in> set (skip_targets st)"
  by (induction e c k rule: case_goto.induct) (auto split: option.splits if_splits)

lemma run_case_no_accept:
  "list_all (\<lambda>st. \<not> is_accept st) k \<Longrightarrow> run_case L e c k r s = (case_goto e c k, r, s)"
  by (induction L e c k r s rule: run_case.induct) (auto split: option.splits)

lemma run_case_accept_first:
  assumes "accept_first k"
  shows "run_case L e c k r s =
    (case case_accepts k of
       None \<Rightarrow> (case_goto e c k, r, s)
     | Some y \<Rightarrow> (case_goto e c k, True, mark_end L (set_result_symbol L s y)))"
proof (cases "\<exists>y k'. k = ACCEPT_TOKEN y # k'")
  case True
  with assms show ?thesis
    by (auto simp: accept_first_def run_case_no_accept)
next
  case False
  then have "list_all (\<lambda>st. \<not> is_accept st) k" "case_accepts k = None"
    using assms by (cases k; cases "hd k"; auto simp: accept_first_def)+
  then show ?thesis
    by (simp add: run_case_no_accept)
qed

section \<open>The locale of a checked table\<close>

locale lexer_table =
  fixes n :: nat and starts :: "TSStateId list" and table :: lex_table
  assumes ok: "table_ok n starts table"
begin

lemma labels: "map fst table = [0..<length table]"
  using ok by (metis table_ok_def diff_zero length_map length_upt)

lemma table_length: "length table = n"
  using ok by (metis table_ok_def diff_zero length_map length_upt)

lemma lookup_Some: "q < n \<Longrightarrow> \<exists>k. map_of table q = Some k"
  using map_of_eq_nth[OF labels] table_length by simp

lemma lookup_None: "n \<le> q \<Longrightarrow> map_of table q = None"
  using map_of_out_of_range[OF labels] table_length by simp

lemma lookup_less: "map_of table q = Some k \<Longrightarrow> q < n"
  using lookup_None by (metis not_le option.distinct(1))

lemma case_of: "map_of table q = Some k \<Longrightarrow> case_ok n starts q k"
  using ok by (auto simp: table_ok_def list_all_iff dest: map_of_SomeD)

text \<open>The target of a jump is a state of the token, never a start state.\<close>

lemma advance_target:
  assumes "state_goto table q e c = Some (ADVANCE q')"
  shows "q' < n \<and> q' \<notin> set starts"
proof -
  from assms obtain k where "map_of table q = Some k" "case_goto e c k = Some (ADVANCE q')"
    by (auto simp: state_goto_def split: option.splits)
  with case_of[of q k] case_goto_ADVANCE[of e c k q'] show ?thesis
    by (auto simp: case_ok_def list_all_iff)
qed

lemma token_state:
  assumes "q < n" and "q \<notin> set starts"
  obtains k where "map_of table q = Some k" "accept_first k" "token_case k"
  using lookup_Some[OF assms(1)] case_of assms(2) that by (auto simp: case_ok_def)

lemma token_goto:
  assumes "q \<notin> set starts"
  shows "state_goto table q e c \<noteq> Some (SKIP q')" and "state_goto table q e 0 = None"
proof -
  have "token_case k" if "map_of table q = Some k" for k
    using case_of[OF that] assms by (auto simp: case_ok_def)
  then show "state_goto table q e c \<noteq> Some (SKIP q')" "state_goto table q e 0 = None"
    by (auto simp: state_goto_def token_case_def list_all_iff split: option.splits
        dest!: case_goto_SKIP intro!: stmts_dead_at_end)
qed

lemma start_goto:
  assumes "q \<in> set starts" and "q < n"
  shows "accepting table q = None"
    and "state_goto table q e c = Some (SKIP q') \<Longrightarrow> q' = q"
    and "state_goto table q False 0 = None"
    and "state_goto table q True 0 \<noteq> Some (SKIP q')"
proof -
  obtain k where k: "map_of table q = Some k" "start_case q k"
    using lookup_Some[OF assms(2)] case_of assms(1) by (auto simp: case_ok_def)
  show "accepting table q = None"
    using k by (cases k; cases "hd k"; auto simp: accepting_def start_case_def)
  show "state_goto table q e c = Some (SKIP q') \<Longrightarrow> q' = q"
    using k by (auto simp: state_goto_def start_case_def list_all_iff dest!: case_goto_SKIP)
  have "state_goto table q False 0 = None \<and> state_goto table q True 0 \<noteq> Some (SKIP q')"
  proof (cases "\<exists>q' k'. k = IF EOF (ADVANCE q') # k'")
    case True
    with k show ?thesis
      by (auto simp: state_goto_def start_case_def stmts_dead_at_end)
  next
    case False
    then have "after_eof_test k = k"
      by (cases k rule: after_eof_test.cases) auto
    then have "case_goto e 0 k = None" for e
      using k(2) by (simp add: start_case_def stmts_dead_at_end)
    with k show ?thesis by (simp add: state_goto_def)
  qed
  then show "state_goto table q False 0 = None" "state_goto table q True 0 \<noteq> Some (SKIP q')"
    by simp_all
qed

end

section \<open>The loop under the contract\<close>

locale lexer_run = lexer_contract L view + lexer_table n starts table
  for L :: "'s TSLexer" and view :: "'s \<Rightarrow> lexer_view" and n starts table
begin

text \<open>The effect of a case before it jumps.\<close>

definition accepted :: "lex_case \<Rightarrow> bool \<Rightarrow> 's \<Rightarrow> bool \<times> 's" where
  "accepted k r s =
     (case case_accepts k of
        None \<Rightarrow> (r, s)
      | Some y \<Rightarrow> (True, mark_end L (set_result_symbol L s y)))"

lemma loop_step:
  assumes "map_of table q = Some k" and "accepted k r s = (r1, s1)"
  shows "lex_loop L table q r s =
    (case state_goto table q (eof L s) (lookahead L s) of
       None \<Rightarrow> Some (r1, s1)
     | Some g \<Rightarrow> lex_loop L table (goto_state g) r1 (advance L s1 (goto_skip g)))"
  using assms case_of[OF assms(1)]
  by (subst lex_loop.simps)
    (auto simp: state_goto_def case_ok_def run_case_accept_first accepted_def split: option.splits)

lemma accepted_view:
  assumes "accepted k r s = (r1, s1)" and "map_of table q = Some k"
  shows "ahead (view s1) = ahead (view s)" and "start (view s1) = start (view s)"
    and "case accepting table q of
        None \<Rightarrow> r1 = r \<and> marked (view s1) = marked (view s) \<and> symbol (view s1) = symbol (view s)
      | Some y \<Rightarrow> r1 \<and> symbol (view s1) = y \<and> marked (view s1) = Some (ahead (view s))"
  using assms by (auto simp: accepted_def accepting_def view_simps split: option.splits)

text \<open>From a state of a token the loop takes the longest token, and keeps an earlier one if none.\<close>

lemma token_loop:
  assumes "q < n" and "q \<notin> set starts"
  shows "\<exists>r' s'. lex_loop L table q r s = Some (r', s') \<and> start (view s') = start (view s) \<and>
    (case longest table q None (ahead (view s)) of
       None \<Rightarrow> r' = r \<and> marked (view s') = marked (view s) \<and> symbol (view s') = symbol (view s)
     | Some (y, e) \<Rightarrow> r' \<and> symbol (view s') = y \<and> marked (view s') = Some e)"
  using assms
proof (induction "ahead (view s)" arbitrary: q r s)
  case Nil
  obtain k where k: "map_of table q = Some k"
    using lookup_Some Nil.prems by blast
  obtain r1 s1 where acc: "accepted k r s = (r1, s1)"
    by (cases "accepted k r s")
  have "lookahead L s = 0"
    using lookahead_Nil Nil.hyps by simp
  then have "lex_loop L table q r s = Some (r1, s1)"
    using loop_step[OF k acc] token_goto(2)[OF Nil.prems(2)] by simp
  with accepted_view[OF acc k] show ?case
    by (auto split: option.splits simp flip: Nil.hyps)
next
  case (Cons c cs)
  obtain k where k: "map_of table q = Some k"
    using lookup_Some Cons.prems by blast
  obtain r1 s1 where acc: "accepted k r s = (r1, s1)"
    by (cases "accepted k r s")
  have c: "lookahead L s = c" and not_eof: "\<not> eof L s"
    using lookahead_Cons[of s c cs] eof_view[of s] by (simp_all flip: Cons.hyps(2))
  note step = loop_step[OF k acc, unfolded c]
  note seen = accepted_view[OF acc k]
  show ?case
  proof (cases "state_goto table q False c")
    case None
    then have "delta table q c = None"
      by (simp add: delta_def)
    with None step seen show ?thesis
      by (auto simp: longest_Cons_None not_eof split: option.splits simp flip: Cons.hyps(2))
  next
    case (Some g)
    then obtain q' where g: "g = ADVANCE q'"
      using token_goto(1)[OF Cons.prems(2)] by (cases g) auto
    let ?t = "advance L s1 False"
    have t: "cs = ahead (view ?t)"
      using seen(1) Cons.hyps(2) by (simp add: view_simps) (metis list.sel(3))
    have next_state: "q' < n" "q' \<notin> set starts"
      using advance_target Some g by blast+
    have "delta table q c = Some q'"
      using Some g by (simp add: delta_def)
    then have longest: "longest table q None (ahead (view s)) =
        (case longest table q' None cs of
           None \<Rightarrow> map_option (\<lambda>y. (y, ahead (view s))) (accepting table q)
         | Some t \<Rightarrow> Some t)"
      unfolding Cons.hyps(2)[symmetric] by (simp add: longest_Cons_None)
    obtain r' s' where r': "lex_loop L table q' r1 ?t = Some (r', s')" "start (view s') = start (view ?t)"
        "case longest table q' None cs of
           None \<Rightarrow> r' = r1 \<and> marked (view s') = marked (view ?t) \<and>
             symbol (view s') = symbol (view ?t)
         | Some (y, e) \<Rightarrow> r' \<and> symbol (view s') = y \<and> marked (view s') = Some e"
      using Cons.hyps(1)[OF t next_state, of r1] t by auto
    have "lex_loop L table q r s = Some (r', s')"
      using step Some g r'(1) not_eof by simp
    with r' seen show ?thesis
      unfolding longest by (auto simp: view_simps split: option.splits)
  qed
qed

text \<open>
  A whole call, in the state the runtime starts a token in: the white space of the start state
  first, then the token.
\<close>

lemma lexer_returns:
  assumes "q < n" and "start (view s) = ahead (view s)" and "marked (view s) = None"
  shows "\<exists>r' s'. lex_loop L table q False s = Some (r', s') \<and>
    start (view s') = dropWhile (skips table q) (ahead (view s)) \<and>
    (case lexer_token table q (ahead (view s)) of
       None \<Rightarrow> \<not> r'
     | Some (y, e) \<Rightarrow> r' \<and> symbol (view s') = y \<and> marked (view s') = Some e)"
proof (cases "q \<in> set starts")
  case False
  then have "skips table q c = False" for c
    using token_goto(1) by (simp add: skips_def)
  moreover have "end_token table q = longest table q None []"
    using token_goto(2)[OF False] by (simp add: end_token_def split: option.splits)
  ultimately have "lexer_token table q xs = longest table q None xs"
      "dropWhile (skips table q) xs = xs" for xs
    by (cases xs; simp add: lexer_token_def)+
  with token_loop[OF assms(1) False, of False s] assms(2) show ?thesis
    by (auto split: option.splits)
next
  case start_state: True
  obtain k where k: "map_of table q = Some k"
    using lookup_Some assms(1) by blast
  have no_accept: "accepting table q = None"
    by (rule start_goto(1)[OF start_state assms(1)])
  then have acc: "accepted k False s = (False, s)" for s
    using k by (simp add: accepted_def accepting_def)
  have taken: "\<exists>r' s'. lex_loop L table q False s = Some (r', s') \<and> start (view s') = start (view s) \<and>
      (case longest table q' None (tl (ahead (view s))) of
         None \<Rightarrow> \<not> r'
       | Some (y, e) \<Rightarrow> r' \<and> symbol (view s') = y \<and> marked (view s') = Some e)"
    if "state_goto table q (eof L s) (lookahead L s) = Some (ADVANCE q')" for s q'
    using token_loop[of q' False "advance L s False"] advance_target[OF that] loop_step[OF k acc] that
    by (auto simp: view_simps split: option.splits)
  show ?thesis
    using assms(2,3)
  proof (induction "ahead (view s)" arbitrary: s)
    case Nil
    have "lookahead L s = 0" and "eof L s"
      using lookahead_Nil[of s] eof_view[of s] Nil.hyps by simp_all
    then have at_end: "state_goto table q (eof L s) (lookahead L s) = state_goto table q True 0"
      by simp
    show ?case
    proof (cases "state_goto table q True 0")
      case None
      with loop_step[OF k acc, of s] at_end no_accept Nil show ?thesis
        by (auto simp: lexer_token_def end_token_def simp flip: Nil.hyps)
    next
      case (Some g)
      then obtain q' where "g = ADVANCE q'"
        using start_goto(4)[OF start_state assms(1)] by (cases g) auto
      with Some have "state_goto table q (eof L s) (lookahead L s) = Some (ADVANCE q')"
        using at_end by simp
      from taken[OF this] Some \<open>g = ADVANCE q'\<close> Nil show ?thesis
        by (auto simp: lexer_token_def end_token_def split: option.splits simp flip: Nil.hyps)
    qed
  next
    case (Cons c cs)
    have c: "lookahead L s = c" and not_eof: "eof L s = False"
      using lookahead_Cons[of s c cs] eof_view[of s] by (simp_all flip: Cons.hyps(2))
    note step = loop_step[OF k acc, of s, unfolded c not_eof]
    consider (stop) "state_goto table q False c = None" | (skip) "skips table q c"
      | (jump) q' where "state_goto table q False c = Some (ADVANCE q')"
      using start_goto(2)[OF start_state assms(1)] unfolding skips_def
      by (metis lex_goto.exhaust option.exhaust)
    then show ?case
    proof cases
      case stop
      then have "lexer_token table q (c # cs) = None"
        using no_accept by (simp add: lexer_token_def skips_def longest_Cons_None delta_def)
      with stop step Cons show ?thesis
        by (auto simp: skips_def simp flip: Cons.hyps(2))
    next
      case skip
      let ?t = "advance L s True"
      have t: "cs = ahead (view ?t)" "start (view ?t) = ahead (view ?t)" "marked (view ?t) = None"
        using Cons.prems by (simp_all add: view_simps flip: Cons.hyps(2))
      have "lexer_token table q (c # cs) = lexer_token table q cs"
        using skip by (simp add: lexer_token_def)
      moreover have "lex_loop L table q False s = lex_loop L table q False ?t"
        using step skip by (simp add: skips_def)
      ultimately show ?thesis
        using Cons.hyps(1)[OF t] skip unfolding Cons.hyps(2)[symmetric] t(1)[symmetric] by simp
    next
      case (jump q')
      have tok: "lexer_token table q (c # cs) = longest table q' None cs"
        using jump no_accept
        by (auto simp: lexer_token_def skips_def longest_Cons_None delta_def split: option.splits)
      have "dropWhile (skips table q) (c # cs) = c # cs"
        using jump by (simp add: skips_def)
      moreover have "state_goto table q (eof L s) (lookahead L s) = Some (ADVANCE q')"
        using jump c not_eof by simp
      ultimately show ?thesis
        using taken[of s q'] tok Cons.prems(1) by (simp flip: Cons.hyps(2))
    qed
  qed
qed

end

end
