(* ===== verification/Lex_Table.thy ===== *)
theory Lex_Table
  imports Lex_Macros Symbols
begin

text \<open>
  The \<open>switch\<close> of \<open>ts_lex\<close>, \<open>src/crates/tree-sitter/src/parser.c\<close>: one entry for each of its
  220 cases, in the order of the file, the statements as the macros write them. The table is cut
  into parts of about 150 lines of the source.
\<close>

text \<open>Lines 35576 to 35725.\<close>

definition ts_lex_cases_1 :: lex_table where
  "ts_lex_cases_1 =
    [(0, [IF EOF (ADVANCE 64), ADVANCE_MAP [(CHR 0x22, 6), (CHR ''#'', 82), (CHR ''%'', 126),
        (CHR ''&'', 136), (CHR 0x27, 14), (CHR ''('', 75), (CHR '')'', 76), (CHR ''*'',
        128), (CHR ''+'', 109), (CHR '','', 70), (CHR ''-'', 111), (CHR ''.'', 130), (CHR
        ''/'', 134), (CHR ''0'', 103), (CHR ''1'', 104), (CHR ''2'', 9), (CHR ''8'', 10),
        (CHR '':'', 68), (CHR '';'', 124), (CHR ''<'', 139), (CHR ''='', 67), (CHR ''>'',
        140), (CHR ''I'', 146), (CHR ''M'', 152), (CHR ''Q'', 149), (CHR ''['', 122), (CHR
        '']'', 123), (CHR ''^'', 132), (CHR ''{'', 72), (CHR ''|'', 137), (CHR ''}'', 73),
        (CHR ''B'', 208), (CHR ''b'', 208), (CHR ''T'', 154), (CHR ''t'', 154)], IF (OR
        (BETWEEN CHR 0x09 CHR 0x0D) (EQ CHR 0x20)) (SKIP 0), IF (SET
        sym_identifier_character_set_1 685) (ADVANCE 217)]),
     (1, [ADVANCE_MAP [(CHR 0x22, 6), (CHR ''#'', 82), (CHR ''%'', 126), (CHR ''&'', 136), (CHR
        0x27, 11), (CHR ''('', 75), (CHR ''*'', 128), (CHR ''+'', 109), (CHR ''-'', 111),
        (CHR ''.'', 131), (CHR ''/'', 134), (CHR ''1'', 89), (CHR ''2'', 83), (CHR ''8'',
        85), (CHR '';'', 124), (CHR ''<'', 139), (CHR ''='', 66), (CHR ''>'', 140), (CHR
        ''['', 122), (CHR ''^'', 132), (CHR ''{'', 72), (CHR ''B'', 208), (CHR ''b'', 208),
        (CHR ''D'', 159), (CHR ''d'', 159), (CHR ''L'', 178), (CHR ''l'', 178), (CHR ''T'',
        155), (CHR ''t'', 155)], IF (OR (BETWEEN CHR 0x09 CHR 0x0D) (EQ CHR 0x20)) (SKIP 1),
        IF (BETWEEN CHR ''0'' CHR ''9'') (ADVANCE 90), IF (SET
        sym_identifier_character_set_1 685) (ADVANCE 217)]),
     (2, [ADVANCE_MAP [(CHR 0x22, 6), (CHR ''#'', 82), (CHR ''%'', 126), (CHR ''&'', 136), (CHR
        0x27, 11), (CHR ''('', 74), (CHR ''*'', 128), (CHR ''+'', 109), (CHR ''-'', 111),
        (CHR ''.'', 131), (CHR ''/'', 134), (CHR ''1'', 89), (CHR ''2'', 83), (CHR ''8'',
        85), (CHR '';'', 124), (CHR ''<'', 139), (CHR ''='', 66), (CHR ''>'', 140), (CHR
        ''['', 122), (CHR ''^'', 132), (CHR ''{'', 72), (CHR ''B'', 208), (CHR ''b'', 208),
        (CHR ''D'', 159), (CHR ''d'', 159), (CHR ''L'', 178), (CHR ''l'', 178), (CHR ''T'',
        155), (CHR ''t'', 155)], IF (OR (BETWEEN CHR 0x09 CHR 0x0D) (EQ CHR 0x20)) (SKIP 2),
        IF (BETWEEN CHR ''0'' CHR ''9'') (ADVANCE 90), IF (SET
        sym_identifier_character_set_1 685) (ADVANCE 217)]),
     (3, [ADVANCE_MAP [(CHR 0x22, 6), (CHR ''%'', 126), (CHR 0x27, 11), (CHR ''('', 75), (CHR
        ''+'', 109), (CHR ''-'', 111), (CHR ''.'', 131), (CHR ''/'', 17), (CHR ''1'', 89),
        (CHR ''2'', 83), (CHR ''8'', 85), (CHR '':'', 68), (CHR '';'', 124), (CHR ''='',
        67), (CHR ''['', 122), (CHR ''^'', 132), (CHR ''{'', 72), (CHR ''B'', 208), (CHR
        ''b'', 208), (CHR ''D'', 159), (CHR ''d'', 159), (CHR ''L'', 178), (CHR ''l'', 178),
        (CHR ''T'', 155), (CHR ''t'', 155)], IF (OR (BETWEEN CHR 0x09 CHR 0x0D) (EQ CHR
        0x20)) (SKIP 3), IF (BETWEEN CHR ''0'' CHR ''9'') (ADVANCE 90), IF (SET
        sym_identifier_character_set_1 685) (ADVANCE 217)])]"

text \<open>Lines 35726 to 35872.\<close>

definition ts_lex_cases_2 :: lex_table where
  "ts_lex_cases_2 =
    [(4, [ADVANCE_MAP [(CHR 0x22, 6), (CHR ''%'', 126), (CHR 0x27, 11), (CHR ''('', 74), (CHR
        '')'', 76), (CHR ''*'', 127), (CHR ''+'', 109), (CHR ''-'', 111), (CHR ''.'', 131),
        (CHR ''/'', 17), (CHR ''1'', 89), (CHR ''2'', 83), (CHR ''8'', 85), (CHR '':'', 68),
        (CHR '';'', 124), (CHR ''='', 67), (CHR ''['', 122), (CHR '']'', 123), (CHR ''^'',
        132), (CHR ''{'', 72), (CHR ''B'', 208), (CHR ''b'', 208), (CHR ''D'', 159), (CHR
        ''d'', 159), (CHR ''L'', 178), (CHR ''l'', 178), (CHR ''T'', 155), (CHR ''t'',
        155)], IF (OR (BETWEEN CHR 0x09 CHR 0x0D) (EQ CHR 0x20)) (SKIP 4), IF (BETWEEN CHR
        ''0'' CHR ''9'') (ADVANCE 90), IF (SET sym_identifier_character_set_1 685) (ADVANCE
        217)]),
     (5, [IF (EQ CHR 0x22) (ADVANCE 106), IF (EQ CHR ''$'') (ADVANCE 59), IF (OR (OR (BETWEEN CHR
        ''0'' CHR ''9'') (BETWEEN CHR ''A'' CHR ''F'')) (BETWEEN CHR ''a'' CHR ''f''))
        (ADVANCE 5), IF (AND (AND (NE CHR 0x00) (NE CHR 0x0A)) (NE CHR 0x0D)) (ADVANCE 6)]),
     (6, [IF (EQ CHR 0x22) (ADVANCE 106), IF (EQ CHR ''$'') (ADVANCE 59), IF (AND (AND (NE CHR
        0x00) (NE CHR 0x0A)) (NE CHR 0x0D)) (ADVANCE 6)]),
     (7, [ADVANCE_MAP [(CHR ''#'', 82), (CHR ''%'', 126), (CHR ''&'', 136), (CHR 0x27, 14), (CHR
        ''('', 75), (CHR '')'', 76), (CHR ''*'', 128), (CHR ''+'', 108), (CHR '','', 70),
        (CHR ''-'', 110), (CHR ''.'', 130), (CHR ''/'', 134), (CHR ''0'', 103), (CHR ''1'',
        104), (CHR '':'', 68), (CHR '';'', 124), (CHR ''<'', 139), (CHR ''='', 66), (CHR
        ''>'', 140), (CHR ''['', 122), (CHR '']'', 123), (CHR ''^'', 132), (CHR ''{'', 72)],
        IF (OR (BETWEEN CHR 0x09 CHR 0x0D) (EQ CHR 0x20)) (SKIP 7), IF (SET
        sym_identifier_character_set_1 685) (ADVANCE 217)]),
     (8, [ADVANCE_MAP [(CHR ''#'', 82), (CHR ''%'', 126), (CHR ''&'', 136), (CHR ''('', 74), (CHR
        '')'', 76), (CHR ''*'', 128), (CHR ''+'', 108), (CHR '','', 70), (CHR ''-'', 110),
        (CHR ''.'', 131), (CHR ''/'', 134), (CHR '':'', 68), (CHR '';'', 124), (CHR ''<'',
        139), (CHR ''='', 67), (CHR ''>'', 140), (CHR ''['', 122), (CHR ''^'', 132), (CHR
        ''{'', 72)], IF (OR (BETWEEN CHR 0x09 CHR 0x0D) (EQ CHR 0x20)) (SKIP 8), IF (SET
        sym_identifier_character_set_1 685) (ADVANCE 217)]),
     (9, [IF (EQ CHR ''#'') (ADVANCE 21)]),
     (10, [IF (EQ CHR ''#'') (ADVANCE 22)]),
     (11, [IF (EQ CHR ''$'') (ADVANCE 60), IF (EQ CHR 0x27) (ADVANCE 105), IF (AND (AND (NE CHR
        0x00) (NE CHR 0x0A)) (NE CHR 0x0D)) (ADVANCE 11)]),
     (12, [ADVANCE_MAP [(CHR ''%'', 126), (CHR ''('', 75), (CHR '')'', 76), (CHR ''*'', 127),
        (CHR ''.'', 129), (CHR ''/'', 17), (CHR ''1'', 91), (CHR ''2'', 84), (CHR ''8'',
        86), (CHR '':'', 68), (CHR '';'', 124), (CHR ''='', 67), (CHR ''['', 122), (CHR
        ''^'', 132), (CHR ''{'', 72), (CHR ''+'', 55), (CHR ''-'', 55)], IF (OR (BETWEEN CHR
        0x09 CHR 0x0D) (EQ CHR 0x20)) (SKIP 12), IF (BETWEEN CHR ''0'' CHR ''9'') (ADVANCE
        92), IF (SET sym_identifier_character_set_1 685) (ADVANCE 217)])]"

text \<open>Lines 35873 to 36019.\<close>

definition ts_lex_cases_3 :: lex_table where
  "ts_lex_cases_3 =
    [(13, [IF (EQ CHR ''%'') (ADVANCE 126), IF (EQ CHR ''/'') (ADVANCE 17), IF (OR (EQ CHR ''L'')
        (EQ CHR ''l'')) (ADVANCE 211), IF (OR (EQ CHR ''T'') (EQ CHR ''t'')) (ADVANCE 154),
        IF (OR (BETWEEN CHR 0x09 CHR 0x0D) (EQ CHR 0x20)) (SKIP 13), IF (SET
        sym_identifier_character_set_1 685) (ADVANCE 217)]),
     (14, [IF (EQ CHR 0x27) (ADVANCE 77), IF (NE CHR 0x00) (ADVANCE 14)]),
     (15, [IF (EQ CHR ''+'') (ADVANCE 108), IF (EQ CHR ''-'') (ADVANCE 110), IF (EQ CHR ''/'')
        (ADVANCE 17), IF (OR (BETWEEN CHR 0x09 CHR 0x0D) (EQ CHR 0x20)) (SKIP 15), IF (OR
        (OR (OR (BETWEEN CHR ''0'' CHR ''9'') (BETWEEN CHR ''A'' CHR ''Z'')) (EQ CHR ''_''))
        (BETWEEN CHR ''a'' CHR ''z'')) (ADVANCE 113)]),
     (16, [IF (EQ CHR ''.'') (ADVANCE 133)]),
     (17, [IF (EQ CHR ''/'') (ADVANCE 71)]),
     (18, [IF (EQ CHR ''/'') (ADVANCE 17), IF (EQ CHR ''I'') (ADVANCE 144), IF (EQ CHR ''M'')
        (ADVANCE 150), IF (EQ CHR ''Q'') (ADVANCE 147), IF (OR (BETWEEN CHR 0x09 CHR 0x0D)
        (EQ CHR 0x20)) (SKIP 18)]),
     (19, [IF (EQ CHR ''/'') (ADVANCE 17), IF (OR (BETWEEN CHR 0x09 CHR 0x0D) (EQ CHR 0x20))
        (SKIP 19), IF (OR (OR (OR (BETWEEN CHR ''0'' CHR ''9'') (BETWEEN CHR ''A'' CHR
        ''Z'')) (EQ CHR ''_'')) (BETWEEN CHR ''a'' CHR ''z'')) (ADVANCE 119)]),
     (20, [IF (EQ CHR ''/'') (ADVANCE 17), IF (OR (BETWEEN CHR 0x09 CHR 0x0D) (EQ CHR 0x20))
        (SKIP 20), IF (OR (OR (OR (BETWEEN CHR ''0'' CHR ''9'') (BETWEEN CHR ''A'' CHR
        ''Z'')) (EQ CHR ''_'')) (BETWEEN CHR ''a'' CHR ''z'')) (ADVANCE 116)]),
     (21, [IF (EQ CHR ''_'') (ADVANCE 49), IF (OR (EQ CHR ''0'') (EQ CHR ''1'')) (ADVANCE 95)]),
     (22, [IF (EQ CHR ''_'') (ADVANCE 50), IF (BETWEEN CHR ''0'' CHR ''7'') (ADVANCE 96)]),
     (23, [IF (EQ CHR ''_'') (ADVANCE 26)]),
     (24, [IF (EQ CHR ''_'') (ADVANCE 62), IF (OR (OR (BETWEEN CHR ''0'' CHR ''9'') (BETWEEN CHR
        ''A'' CHR ''F'')) (BETWEEN CHR ''a'' CHR ''f'')) (ADVANCE 97)]),
     (25, [IF (EQ CHR ''a'') (ADVANCE 30)]),
     (26, [IF (EQ CHR ''c'') (ADVANCE 25)]),
     (27, [IF (EQ CHR ''c'') (ADVANCE 28)]),
     (28, [IF (EQ CHR ''e'') (ADVANCE 43)]),
     (29, [IF (EQ CHR ''e'') (ADVANCE 37)]),
     (30, [IF (EQ CHR ''l'') (ADVANCE 31)]),
     (31, [IF (EQ CHR ''l'') (ADVANCE 46)]),
     (32, [IF (EQ CHR ''n'') (ADVANCE 27)]),
     (33, [IF (EQ CHR ''o'') (ADVANCE 35)]),
     (34, [IF (EQ CHR ''p'') (ADVANCE 33)]),
     (35, [IF (EQ CHR ''r'') (ADVANCE 40)]),
     (36, [IF (EQ CHR ''s'') (ADVANCE 38)]),
     (37, [IF (EQ CHR ''s'') (ADVANCE 39)]),
     (38, [IF (EQ CHR ''t'') (ADVANCE 23)]),
     (39, [IF (EQ CHR ''t'') (ADVANCE 44)]),
     (40, [IF (EQ CHR ''t'') (ADVANCE 45)]),
     (41, [IF (EQ CHR ''u'') (ADVANCE 36)]),
     (42, [IF (EQ CHR ''x'') (ADVANCE 34)]),
     (43, [IF (EQ CHR ''}'') (ADVANCE 79)]),
     (44, [IF (EQ CHR ''}'') (ADVANCE 78)]),
     (45, [IF (EQ CHR ''}'') (ADVANCE 81)]),
     (46, [IF (EQ CHR ''}'') (ADVANCE 80)]),
     (47, [IF (OR (EQ CHR ''+'') (EQ CHR ''-'')) (ADVANCE 52), IF (BETWEEN CHR ''0'' CHR ''9'')
        (ADVANCE 99)])]"

text \<open>Lines 36020 to 36165.\<close>

definition ts_lex_cases_4 :: lex_table where
  "ts_lex_cases_4 =
    [(48, [IF (OR (EQ CHR ''+'') (EQ CHR ''-'')) (ADVANCE 54), IF (BETWEEN CHR ''0'' CHR ''9'')
        (ADVANCE 101)]),
     (49, [IF (OR (EQ CHR ''0'') (EQ CHR ''1'')) (ADVANCE 95)]),
     (50, [IF (BETWEEN CHR ''0'' CHR ''7'') (ADVANCE 96)]),
     (51, [IF (BETWEEN CHR ''0'' CHR ''9'') (ADVANCE 98)]),
     (52, [IF (BETWEEN CHR ''0'' CHR ''9'') (ADVANCE 99)]),
     (53, [IF (BETWEEN CHR ''0'' CHR ''9'') (ADVANCE 100)]),
     (54, [IF (BETWEEN CHR ''0'' CHR ''9'') (ADVANCE 101)]),
     (55, [IF (BETWEEN CHR ''0'' CHR ''9'') (ADVANCE 94)]),
     (56, [IF (BETWEEN CHR ''0'' CHR ''9'') (ADVANCE 113)]),
     (57, [IF (BETWEEN CHR ''0'' CHR ''9'') (ADVANCE 119)]),
     (58, [IF (BETWEEN CHR ''0'' CHR ''9'') (ADVANCE 116)]),
     (59, [ADVANCE_MAP [(CHR 0x22, 6), (CHR ''$'', 6), (CHR ''L'', 6), (CHR ''N'', 6), (CHR
        ''P'', 6), (CHR ''R'', 6), (CHR ''T'', 6), (CHR ''l'', 6), (CHR ''n'', 6), (CHR
        ''p'', 6), (CHR ''r'', 6), (CHR ''t'', 6)], IF (OR (OR (BETWEEN CHR ''0'' CHR ''9'')
        (BETWEEN CHR ''A'' CHR ''F'')) (BETWEEN CHR ''a'' CHR ''f'')) (ADVANCE 5)]),
     (60, [ADVANCE_MAP [(CHR ''$'', 11), (CHR 0x27, 11), (CHR ''L'', 11), (CHR ''N'', 11), (CHR
        ''P'', 11), (CHR ''R'', 11), (CHR ''T'', 11), (CHR ''l'', 11), (CHR ''n'', 11), (CHR
        ''p'', 11), (CHR ''r'', 11), (CHR ''t'', 11)], IF (OR (OR (BETWEEN CHR ''0'' CHR
        ''9'') (BETWEEN CHR ''A'' CHR ''F'')) (BETWEEN CHR ''a'' CHR ''f'')) (ADVANCE 61)]),
     (61, [IF (OR (OR (BETWEEN CHR ''0'' CHR ''9'') (BETWEEN CHR ''A'' CHR ''F'')) (BETWEEN CHR
        ''a'' CHR ''f'')) (ADVANCE 11)]),
     (62, [IF (OR (OR (BETWEEN CHR ''0'' CHR ''9'') (BETWEEN CHR ''A'' CHR ''F'')) (BETWEEN CHR
        ''a'' CHR ''f'')) (ADVANCE 97)]),
     (63, [IF EOF (ADVANCE 64), ADVANCE_MAP [(CHR 0x22, 6), (CHR ''#'', 82), (CHR ''%'', 126),
        (CHR ''&'', 136), (CHR 0x27, 11), (CHR ''('', 74), (CHR '')'', 76), (CHR ''*'',
        128), (CHR ''+'', 108), (CHR '','', 70), (CHR ''-'', 110), (CHR ''.'', 130), (CHR
        ''/'', 134), (CHR ''1'', 91), (CHR '':'', 68), (CHR '';'', 124), (CHR ''<'', 139),
        (CHR ''='', 66), (CHR ''>'', 140), (CHR ''['', 122), (CHR '']'', 123), (CHR ''^'',
        132), (CHR ''{'', 72), (CHR ''|'', 137), (CHR ''}'', 73)], IF (OR (BETWEEN CHR 0x09
        CHR 0x0D) (EQ CHR 0x20)) (SKIP 63), IF (BETWEEN CHR ''0'' CHR ''9'') (ADVANCE 92),
        IF (SET sym_identifier_character_set_1 685) (ADVANCE 217)]),
     (64, [ACCEPT_TOKEN ts_builtin_sym_end]),
     (65, [ACCEPT_TOKEN anon_sym_COLON_EQ]),
     (66, [ACCEPT_TOKEN anon_sym_EQ]),
     (67, [ACCEPT_TOKEN anon_sym_EQ, IF (EQ CHR ''>'') (ADVANCE 69)]),
     (68, [ACCEPT_TOKEN anon_sym_COLON, IF (EQ CHR ''='') (ADVANCE 65)]),
     (69, [ACCEPT_TOKEN anon_sym_EQ_GT]),
     (70, [ACCEPT_TOKEN anon_sym_COMMA]),
     (71, [ACCEPT_TOKEN sym_line_comment, IF (AND (NE CHR 0x00) (NE CHR 0x0A)) (ADVANCE 71)])]"

text \<open>Lines 36166 to 36314.\<close>

definition ts_lex_cases_5 :: lex_table where
  "ts_lex_cases_5 =
    [(72, [ACCEPT_TOKEN anon_sym_LBRACE, IF (EQ CHR ''e'') (ADVANCE 42), IF (EQ CHR ''m'')
        (ADVANCE 41), IF (EQ CHR ''o'') (ADVANCE 32), IF (EQ CHR ''t'') (ADVANCE 29)]),
     (73, [ACCEPT_TOKEN anon_sym_RBRACE]),
     (74, [ACCEPT_TOKEN anon_sym_LPAREN]),
     (75, [ACCEPT_TOKEN anon_sym_LPAREN, IF (EQ CHR '')'') (ADVANCE 143)]),
     (76, [ACCEPT_TOKEN anon_sym_RPAREN]),
     (77, [ACCEPT_TOKEN sym_pragma_string]),
     (78, [ACCEPT_TOKEN aux_sym_test_pragma_token1]),
     (79, [ACCEPT_TOKEN aux_sym_once_pragma_token1]),
     (80, [ACCEPT_TOKEN aux_sym_must_call_pragma_token1]),
     (81, [ACCEPT_TOKEN aux_sym_export_pragma_token1]),
     (82, [ACCEPT_TOKEN anon_sym_POUND]),
     (83, [ACCEPT_TOKEN sym_unsigned_int, IF (EQ CHR ''#'') (ADVANCE 21), IF (EQ CHR ''.'')
        (ADVANCE 53), IF (OR (EQ CHR ''E'') (EQ CHR ''e'')) (ADVANCE 48), IF (OR (BETWEEN
        CHR ''0'' CHR ''9'') (EQ CHR ''_'')) (ADVANCE 90)]),
     (84, [ACCEPT_TOKEN sym_unsigned_int, IF (EQ CHR ''#'') (ADVANCE 21), IF (OR (BETWEEN CHR
        ''0'' CHR ''9'') (EQ CHR ''_'')) (ADVANCE 92)]),
     (85, [ACCEPT_TOKEN sym_unsigned_int, IF (EQ CHR ''#'') (ADVANCE 22), IF (EQ CHR ''.'')
        (ADVANCE 53), IF (OR (EQ CHR ''E'') (EQ CHR ''e'')) (ADVANCE 48), IF (OR (BETWEEN
        CHR ''0'' CHR ''9'') (EQ CHR ''_'')) (ADVANCE 90)]),
     (86, [ACCEPT_TOKEN sym_unsigned_int, IF (EQ CHR ''#'') (ADVANCE 22), IF (OR (BETWEEN CHR
        ''0'' CHR ''9'') (EQ CHR ''_'')) (ADVANCE 92)]),
     (87, [ACCEPT_TOKEN sym_unsigned_int, IF (EQ CHR ''#'') (ADVANCE 24), IF (EQ CHR ''.'')
        (ADVANCE 53), IF (OR (EQ CHR ''E'') (EQ CHR ''e'')) (ADVANCE 48), IF (OR (BETWEEN
        CHR ''0'' CHR ''9'') (EQ CHR ''_'')) (ADVANCE 90)]),
     (88, [ACCEPT_TOKEN sym_unsigned_int, IF (EQ CHR ''#'') (ADVANCE 24), IF (OR (BETWEEN CHR
        ''0'' CHR ''9'') (EQ CHR ''_'')) (ADVANCE 92)]),
     (89, [ACCEPT_TOKEN sym_unsigned_int, IF (EQ CHR ''.'') (ADVANCE 53), IF (EQ CHR ''6'')
        (ADVANCE 87), IF (OR (EQ CHR ''E'') (EQ CHR ''e'')) (ADVANCE 48), IF (OR (BETWEEN
        CHR ''0'' CHR ''9'') (EQ CHR ''_'')) (ADVANCE 90)]),
     (90, [ACCEPT_TOKEN sym_unsigned_int, IF (EQ CHR ''.'') (ADVANCE 53), IF (OR (EQ CHR ''E'')
        (EQ CHR ''e'')) (ADVANCE 48), IF (OR (BETWEEN CHR ''0'' CHR ''9'') (EQ CHR ''_''))
        (ADVANCE 90)]),
     (91, [ACCEPT_TOKEN sym_unsigned_int, IF (EQ CHR ''6'') (ADVANCE 88), IF (OR (BETWEEN CHR
        ''0'' CHR ''9'') (EQ CHR ''_'')) (ADVANCE 92)]),
     (92, [ACCEPT_TOKEN sym_unsigned_int, IF (OR (BETWEEN CHR ''0'' CHR ''9'') (EQ CHR ''_''))
        (ADVANCE 92)]),
     (93, [ACCEPT_TOKEN sym__explicit_signed_int, IF (EQ CHR ''.'') (ADVANCE 51), IF (OR (EQ CHR
        ''E'') (EQ CHR ''e'')) (ADVANCE 47), IF (OR (BETWEEN CHR ''0'' CHR ''9'') (EQ CHR
        ''_'')) (ADVANCE 93)]),
     (94, [ACCEPT_TOKEN sym__explicit_signed_int, IF (OR (BETWEEN CHR ''0'' CHR ''9'') (EQ CHR
        ''_'')) (ADVANCE 94)]),
     (95, [ACCEPT_TOKEN sym_binary_int, IF (OR (OR (EQ CHR ''0'') (EQ CHR ''1'')) (EQ CHR ''_''))
        (ADVANCE 95)]),
     (96, [ACCEPT_TOKEN sym_octal_int, IF (OR (BETWEEN CHR ''0'' CHR ''7'') (EQ CHR ''_''))
        (ADVANCE 96)]),
     (97, [ACCEPT_TOKEN sym_hex_int, IF (OR (OR (OR (BETWEEN CHR ''0'' CHR ''9'') (BETWEEN CHR
        ''A'' CHR ''F'')) (EQ CHR ''_'')) (BETWEEN CHR ''a'' CHR ''f'')) (ADVANCE 97)]),
     (98, [ACCEPT_TOKEN sym__explicit_signed_real, IF (OR (EQ CHR ''E'') (EQ CHR ''e'')) (ADVANCE
        47), IF (OR (BETWEEN CHR ''0'' CHR ''9'') (EQ CHR ''_'')) (ADVANCE 98)])]"

text \<open>Lines 36315 to 36463.\<close>

definition ts_lex_cases_6 :: lex_table where
  "ts_lex_cases_6 =
    [(99, [ACCEPT_TOKEN sym__explicit_signed_real, IF (OR (BETWEEN CHR ''0'' CHR ''9'') (EQ CHR
        ''_'')) (ADVANCE 99)]),
     (100, [ACCEPT_TOKEN sym_real_value, IF (OR (EQ CHR ''E'') (EQ CHR ''e'')) (ADVANCE 48), IF
        (OR (BETWEEN CHR ''0'' CHR ''9'') (EQ CHR ''_'')) (ADVANCE 100)]),
     (101, [ACCEPT_TOKEN sym_real_value, IF (OR (BETWEEN CHR ''0'' CHR ''9'') (EQ CHR ''_''))
        (ADVANCE 101)]),
     (102, [ACCEPT_TOKEN aux_sym_bool_literal_with_string_token1]),
     (103, [ACCEPT_TOKEN anon_sym_0]),
     (104, [ACCEPT_TOKEN anon_sym_1]),
     (105, [ACCEPT_TOKEN sym_s_byte_char_str]),
     (106, [ACCEPT_TOKEN sym_d_byte_char_str]),
     (107, [ACCEPT_TOKEN aux_sym_time_token1]),
     (108, [ACCEPT_TOKEN anon_sym_PLUS]),
     (109, [ACCEPT_TOKEN anon_sym_PLUS, IF (BETWEEN CHR ''0'' CHR ''9'') (ADVANCE 93)]),
     (110, [ACCEPT_TOKEN anon_sym_DASH]),
     (111, [ACCEPT_TOKEN anon_sym_DASH, IF (BETWEEN CHR ''0'' CHR ''9'') (ADVANCE 93)]),
     (112, [ACCEPT_TOKEN aux_sym_ltime_token1]),
     (113, [ACCEPT_TOKEN sym_time_value, IF (EQ CHR ''.'') (ADVANCE 56), IF (OR (OR (OR (BETWEEN
        CHR ''0'' CHR ''9'') (BETWEEN CHR ''A'' CHR ''Z'')) (EQ CHR ''_'')) (BETWEEN CHR
        ''a'' CHR ''z'')) (ADVANCE 113)]),
     (114, [ACCEPT_TOKEN aux_sym_tod_token1]),
     (115, [ACCEPT_TOKEN aux_sym_ltod_token1]),
     (116, [ACCEPT_TOKEN sym_daytime, IF (OR (EQ CHR ''.'') (EQ CHR '':'')) (ADVANCE 58), IF (OR
        (OR (OR (BETWEEN CHR ''0'' CHR ''9'') (BETWEEN CHR ''A'' CHR ''Z'')) (EQ CHR ''_''))
        (BETWEEN CHR ''a'' CHR ''z'')) (ADVANCE 116)]),
     (117, [ACCEPT_TOKEN aux_sym_short_date_token1]),
     (118, [ACCEPT_TOKEN aux_sym_long_date_token1]),
     (119, [ACCEPT_TOKEN aux_sym_date_literal_token1, IF (OR (OR (EQ CHR ''-'') (EQ CHR ''.''))
        (EQ CHR '':'')) (ADVANCE 57), IF (OR (OR (OR (BETWEEN CHR ''0'' CHR ''9'') (BETWEEN
        CHR ''A'' CHR ''Z'')) (EQ CHR ''_'')) (BETWEEN CHR ''a'' CHR ''z'')) (ADVANCE 119)]),
     (120, [ACCEPT_TOKEN aux_sym_short_date_and_time_token1]),
     (121, [ACCEPT_TOKEN aux_sym_long_date_and_time_token1]),
     (122, [ACCEPT_TOKEN anon_sym_LBRACK]),
     (123, [ACCEPT_TOKEN anon_sym_RBRACK]),
     (124, [ACCEPT_TOKEN anon_sym_SEMI]),
     (125, [ACCEPT_TOKEN anon_sym_DOT_DOT]),
     (126, [ACCEPT_TOKEN anon_sym_PERCENT]),
     (127, [ACCEPT_TOKEN anon_sym_STAR]),
     (128, [ACCEPT_TOKEN anon_sym_STAR, IF (EQ CHR ''*'') (ADVANCE 135)]),
     (129, [ACCEPT_TOKEN anon_sym_DOT]),
     (130, [ACCEPT_TOKEN anon_sym_DOT, IF (EQ CHR ''.'') (ADVANCE 125)]),
     (131, [ACCEPT_TOKEN anon_sym_DOT, IF (EQ CHR ''.'') (ADVANCE 16)]),
     (132, [ACCEPT_TOKEN anon_sym_CARET]),
     (133, [ACCEPT_TOKEN anon_sym_DOT_DOT_DOT]),
     (134, [ACCEPT_TOKEN anon_sym_SLASH, IF (EQ CHR ''/'') (ADVANCE 71)]),
     (135, [ACCEPT_TOKEN anon_sym_STAR_STAR]),
     (136, [ACCEPT_TOKEN anon_sym_AMP]),
     (137, [ACCEPT_TOKEN anon_sym_PIPE])]"

text \<open>Lines 36464 to 36609.\<close>

definition ts_lex_cases_7 :: lex_table where
  "ts_lex_cases_7 =
    [(138, [ACCEPT_TOKEN anon_sym_LT_GT]),
     (139, [ACCEPT_TOKEN anon_sym_LT, IF (EQ CHR ''='') (ADVANCE 141), IF (EQ CHR ''>'') (ADVANCE
        138)]),
     (140, [ACCEPT_TOKEN anon_sym_GT, IF (EQ CHR ''='') (ADVANCE 142)]),
     (141, [ACCEPT_TOKEN anon_sym_LT_EQ]),
     (142, [ACCEPT_TOKEN anon_sym_GT_EQ]),
     (143, [ACCEPT_TOKEN anon_sym_LPAREN_RPAREN]),
     (144, [ACCEPT_TOKEN anon_sym_I]),
     (145, [ACCEPT_TOKEN anon_sym_I, IF (OR (BETWEEN CHR ''A'' CHR ''Z'') (BETWEEN CHR ''a'' CHR
        ''z'')) (ADVANCE 219)]),
     (146, [ACCEPT_TOKEN anon_sym_I, IF (SET sym_identifier_character_set_2 800) (ADVANCE 217)]),
     (147, [ACCEPT_TOKEN anon_sym_Q]),
     (148, [ACCEPT_TOKEN anon_sym_Q, IF (OR (BETWEEN CHR ''A'' CHR ''Z'') (BETWEEN CHR ''a'' CHR
        ''z'')) (ADVANCE 219)]),
     (149, [ACCEPT_TOKEN anon_sym_Q, IF (SET sym_identifier_character_set_2 800) (ADVANCE 217)]),
     (150, [ACCEPT_TOKEN anon_sym_M]),
     (151, [ACCEPT_TOKEN anon_sym_M, IF (OR (BETWEEN CHR ''A'' CHR ''Z'') (BETWEEN CHR ''a'' CHR
        ''z'')) (ADVANCE 219)]),
     (152, [ACCEPT_TOKEN anon_sym_M, IF (SET sym_identifier_character_set_2 800) (ADVANCE 217)]),
     (153, [ACCEPT_TOKEN sym_identifier, IF (EQ CHR ''#'') (ADVANCE 107), IF (EQ CHR ''_'')
        (ADVANCE 207), IF (SET sym_identifier_character_set_2 800) (ADVANCE 217)]),
     (154, [ACCEPT_TOKEN sym_identifier, IF (EQ CHR ''#'') (ADVANCE 107), IF (OR (EQ CHR ''I'')
        (EQ CHR ''i'')) (ADVANCE 198), IF (SET sym_identifier_character_set_2 800) (ADVANCE
        217)]),
     (155, [ACCEPT_TOKEN sym_identifier, IF (EQ CHR ''#'') (ADVANCE 107), IF (OR (EQ CHR ''I'')
        (EQ CHR ''i'')) (ADVANCE 199), IF (OR (EQ CHR ''O'') (EQ CHR ''o'')) (ADVANCE 181),
        IF (SET sym_identifier_character_set_2 800) (ADVANCE 217)]),
     (156, [ACCEPT_TOKEN sym_identifier, IF (EQ CHR ''#'') (ADVANCE 107), IF (SET
        sym_identifier_character_set_2 800) (ADVANCE 217)]),
     (157, [ACCEPT_TOKEN sym_identifier, IF (EQ CHR ''#'') (ADVANCE 102), IF (SET
        sym_identifier_character_set_2 800) (ADVANCE 217)]),
     (158, [ACCEPT_TOKEN sym_identifier, IF (EQ CHR ''#'') (ADVANCE 117), IF (EQ CHR ''_'')
        (ADVANCE 174), IF (SET sym_identifier_character_set_2 800) (ADVANCE 217)]),
     (159, [ACCEPT_TOKEN sym_identifier, IF (EQ CHR ''#'') (ADVANCE 117), IF (OR (EQ CHR ''A'')
        (EQ CHR ''a'')) (ADVANCE 212), IF (OR (EQ CHR ''T'') (EQ CHR ''t'')) (ADVANCE 160),
        IF (SET sym_identifier_character_set_2 800) (ADVANCE 217)]),
     (160, [ACCEPT_TOKEN sym_identifier, IF (EQ CHR ''#'') (ADVANCE 120), IF (SET
        sym_identifier_character_set_2 800) (ADVANCE 217)]),
     (161, [ACCEPT_TOKEN sym_identifier, IF (EQ CHR ''#'') (ADVANCE 118), IF (EQ CHR ''_'')
        (ADVANCE 177), IF (SET sym_identifier_character_set_2 800) (ADVANCE 217)]),
     (162, [ACCEPT_TOKEN sym_identifier, IF (EQ CHR ''#'') (ADVANCE 118), IF (OR (EQ CHR ''A'')
        (EQ CHR ''a'')) (ADVANCE 213), IF (OR (EQ CHR ''T'') (EQ CHR ''t'')) (ADVANCE 167),
        IF (SET sym_identifier_character_set_2 800) (ADVANCE 217)]),
     (163, [ACCEPT_TOKEN sym_identifier, IF (EQ CHR ''#'') (ADVANCE 112), IF (EQ CHR ''_'')
        (ADVANCE 209), IF (SET sym_identifier_character_set_2 800) (ADVANCE 217)]),
     (164, [ACCEPT_TOKEN sym_identifier, IF (EQ CHR ''#'') (ADVANCE 112), IF (OR (EQ CHR ''I'')
        (EQ CHR ''i'')) (ADVANCE 200), IF (OR (EQ CHR ''O'') (EQ CHR ''o'')) (ADVANCE 182),
        IF (SET sym_identifier_character_set_2 800) (ADVANCE 217)]),
     (165, [ACCEPT_TOKEN sym_identifier, IF (EQ CHR ''#'') (ADVANCE 112), IF (OR (EQ CHR ''I'')
        (EQ CHR ''i'')) (ADVANCE 203), IF (SET sym_identifier_character_set_2 800) (ADVANCE
        217)])]"

text \<open>Lines 36610 to 36759.\<close>

definition ts_lex_cases_8 :: lex_table where
  "ts_lex_cases_8 =
    [(166, [ACCEPT_TOKEN sym_identifier, IF (EQ CHR ''#'') (ADVANCE 112), IF (SET
        sym_identifier_character_set_2 800) (ADVANCE 217)]),
     (167, [ACCEPT_TOKEN sym_identifier, IF (EQ CHR ''#'') (ADVANCE 121), IF (SET
        sym_identifier_character_set_2 800) (ADVANCE 217)]),
     (168, [ACCEPT_TOKEN sym_identifier, IF (EQ CHR ''#'') (ADVANCE 114), IF (SET
        sym_identifier_character_set_2 800) (ADVANCE 217)]),
     (169, [ACCEPT_TOKEN sym_identifier, IF (EQ CHR ''#'') (ADVANCE 115), IF (SET
        sym_identifier_character_set_2 800) (ADVANCE 217)]),
     (170, [ACCEPT_TOKEN sym_identifier, IF (EQ CHR ''_'') (ADVANCE 210), IF (SET
        sym_identifier_character_set_2 800) (ADVANCE 217)]),
     (171, [ACCEPT_TOKEN sym_identifier, IF (EQ CHR ''_'') (ADVANCE 179), IF (SET
        sym_identifier_character_set_2 800) (ADVANCE 217)]),
     (172, [ACCEPT_TOKEN sym_identifier, IF (EQ CHR ''_'') (ADVANCE 183), IF (SET
        sym_identifier_character_set_2 800) (ADVANCE 217)]),
     (173, [ACCEPT_TOKEN sym_identifier, IF (EQ CHR ''_'') (ADVANCE 214), IF (SET
        sym_identifier_character_set_2 800) (ADVANCE 217)]),
     (174, [ACCEPT_TOKEN sym_identifier, IF (OR (EQ CHR ''A'') (EQ CHR ''a'')) (ADVANCE 204), IF
        (SET sym_identifier_character_set_2 800) (ADVANCE 217)]),
     (175, [ACCEPT_TOKEN sym_identifier, IF (OR (EQ CHR ''A'') (EQ CHR ''a'')) (ADVANCE 215), IF
        (SET sym_identifier_character_set_2 800) (ADVANCE 217)]),
     (176, [ACCEPT_TOKEN sym_identifier, IF (OR (EQ CHR ''A'') (EQ CHR ''a'')) (ADVANCE 216), IF
        (SET sym_identifier_character_set_2 800) (ADVANCE 217)]),
     (177, [ACCEPT_TOKEN sym_identifier, IF (OR (EQ CHR ''A'') (EQ CHR ''a'')) (ADVANCE 205), IF
        (SET sym_identifier_character_set_2 800) (ADVANCE 217)]),
     (178, [ACCEPT_TOKEN sym_identifier, IF (OR (EQ CHR ''D'') (EQ CHR ''d'')) (ADVANCE 162), IF
        (OR (EQ CHR ''T'') (EQ CHR ''t'')) (ADVANCE 164), IF (SET
        sym_identifier_character_set_2 800) (ADVANCE 217)]),
     (179, [ACCEPT_TOKEN sym_identifier, IF (OR (EQ CHR ''D'') (EQ CHR ''d'')) (ADVANCE 175), IF
        (SET sym_identifier_character_set_2 800) (ADVANCE 217)]),
     (180, [ACCEPT_TOKEN sym_identifier, IF (OR (EQ CHR ''D'') (EQ CHR ''d'')) (ADVANCE 170), IF
        (SET sym_identifier_character_set_2 800) (ADVANCE 217)]),
     (181, [ACCEPT_TOKEN sym_identifier, IF (OR (EQ CHR ''D'') (EQ CHR ''d'')) (ADVANCE 168), IF
        (SET sym_identifier_character_set_2 800) (ADVANCE 217)]),
     (182, [ACCEPT_TOKEN sym_identifier, IF (OR (EQ CHR ''D'') (EQ CHR ''d'')) (ADVANCE 169), IF
        (SET sym_identifier_character_set_2 800) (ADVANCE 217)]),
     (183, [ACCEPT_TOKEN sym_identifier, IF (OR (EQ CHR ''D'') (EQ CHR ''d'')) (ADVANCE 176), IF
        (SET sym_identifier_character_set_2 800) (ADVANCE 217)]),
     (184, [ACCEPT_TOKEN sym_identifier, IF (OR (EQ CHR ''D'') (EQ CHR ''d'')) (ADVANCE 173), IF
        (SET sym_identifier_character_set_2 800) (ADVANCE 217)]),
     (185, [ACCEPT_TOKEN sym_identifier, IF (OR (EQ CHR ''E'') (EQ CHR ''e'')) (ADVANCE 158), IF
        (SET sym_identifier_character_set_2 800) (ADVANCE 217)]),
     (186, [ACCEPT_TOKEN sym_identifier, IF (OR (EQ CHR ''E'') (EQ CHR ''e'')) (ADVANCE 156), IF
        (SET sym_identifier_character_set_2 800) (ADVANCE 217)]),
     (187, [ACCEPT_TOKEN sym_identifier, IF (OR (EQ CHR ''E'') (EQ CHR ''e'')) (ADVANCE 153), IF
        (SET sym_identifier_character_set_2 800) (ADVANCE 217)]),
     (188, [ACCEPT_TOKEN sym_identifier, IF (OR (EQ CHR ''E'') (EQ CHR ''e'')) (ADVANCE 160), IF
        (SET sym_identifier_character_set_2 800) (ADVANCE 217)]),
     (189, [ACCEPT_TOKEN sym_identifier, IF (OR (EQ CHR ''E'') (EQ CHR ''e'')) (ADVANCE 161), IF
        (SET sym_identifier_character_set_2 800) (ADVANCE 217)]),
     (190, [ACCEPT_TOKEN sym_identifier, IF (OR (EQ CHR ''E'') (EQ CHR ''e'')) (ADVANCE 167), IF
        (SET sym_identifier_character_set_2 800) (ADVANCE 217)]),
     (191, [ACCEPT_TOKEN sym_identifier, IF (OR (EQ CHR ''E'') (EQ CHR ''e'')) (ADVANCE 163), IF
        (SET sym_identifier_character_set_2 800) (ADVANCE 217)])]"

text \<open>Lines 36760 to 36909.\<close>

definition ts_lex_cases_9 :: lex_table where
  "ts_lex_cases_9 =
    [(192, [ACCEPT_TOKEN sym_identifier, IF (OR (EQ CHR ''E'') (EQ CHR ''e'')) (ADVANCE 166), IF
        (SET sym_identifier_character_set_2 800) (ADVANCE 217)]),
     (193, [ACCEPT_TOKEN sym_identifier, IF (OR (EQ CHR ''F'') (EQ CHR ''f'')) (ADVANCE 171), IF
        (SET sym_identifier_character_set_2 800) (ADVANCE 217)]),
     (194, [ACCEPT_TOKEN sym_identifier, IF (OR (EQ CHR ''F'') (EQ CHR ''f'')) (ADVANCE 172), IF
        (SET sym_identifier_character_set_2 800) (ADVANCE 217)]),
     (195, [ACCEPT_TOKEN sym_identifier, IF (OR (EQ CHR ''I'') (EQ CHR ''i'')) (ADVANCE 201), IF
        (SET sym_identifier_character_set_2 800) (ADVANCE 217)]),
     (196, [ACCEPT_TOKEN sym_identifier, IF (OR (EQ CHR ''I'') (EQ CHR ''i'')) (ADVANCE 202), IF
        (SET sym_identifier_character_set_2 800) (ADVANCE 217)]),
     (197, [ACCEPT_TOKEN sym_identifier, IF (OR (EQ CHR ''L'') (EQ CHR ''l'')) (ADVANCE 157), IF
        (SET sym_identifier_character_set_2 800) (ADVANCE 217)]),
     (198, [ACCEPT_TOKEN sym_identifier, IF (OR (EQ CHR ''M'') (EQ CHR ''m'')) (ADVANCE 186), IF
        (SET sym_identifier_character_set_2 800) (ADVANCE 217)]),
     (199, [ACCEPT_TOKEN sym_identifier, IF (OR (EQ CHR ''M'') (EQ CHR ''m'')) (ADVANCE 187), IF
        (SET sym_identifier_character_set_2 800) (ADVANCE 217)]),
     (200, [ACCEPT_TOKEN sym_identifier, IF (OR (EQ CHR ''M'') (EQ CHR ''m'')) (ADVANCE 191), IF
        (SET sym_identifier_character_set_2 800) (ADVANCE 217)]),
     (201, [ACCEPT_TOKEN sym_identifier, IF (OR (EQ CHR ''M'') (EQ CHR ''m'')) (ADVANCE 188), IF
        (SET sym_identifier_character_set_2 800) (ADVANCE 217)]),
     (202, [ACCEPT_TOKEN sym_identifier, IF (OR (EQ CHR ''M'') (EQ CHR ''m'')) (ADVANCE 190), IF
        (SET sym_identifier_character_set_2 800) (ADVANCE 217)]),
     (203, [ACCEPT_TOKEN sym_identifier, IF (OR (EQ CHR ''M'') (EQ CHR ''m'')) (ADVANCE 192), IF
        (SET sym_identifier_character_set_2 800) (ADVANCE 217)]),
     (204, [ACCEPT_TOKEN sym_identifier, IF (OR (EQ CHR ''N'') (EQ CHR ''n'')) (ADVANCE 180), IF
        (SET sym_identifier_character_set_2 800) (ADVANCE 217)]),
     (205, [ACCEPT_TOKEN sym_identifier, IF (OR (EQ CHR ''N'') (EQ CHR ''n'')) (ADVANCE 184), IF
        (SET sym_identifier_character_set_2 800) (ADVANCE 217)]),
     (206, [ACCEPT_TOKEN sym_identifier, IF (OR (EQ CHR ''O'') (EQ CHR ''o'')) (ADVANCE 197), IF
        (SET sym_identifier_character_set_2 800) (ADVANCE 217)]),
     (207, [ACCEPT_TOKEN sym_identifier, IF (OR (EQ CHR ''O'') (EQ CHR ''o'')) (ADVANCE 193), IF
        (SET sym_identifier_character_set_2 800) (ADVANCE 217)]),
     (208, [ACCEPT_TOKEN sym_identifier, IF (OR (EQ CHR ''O'') (EQ CHR ''o'')) (ADVANCE 206), IF
        (SET sym_identifier_character_set_2 800) (ADVANCE 217)]),
     (209, [ACCEPT_TOKEN sym_identifier, IF (OR (EQ CHR ''O'') (EQ CHR ''o'')) (ADVANCE 194), IF
        (SET sym_identifier_character_set_2 800) (ADVANCE 217)]),
     (210, [ACCEPT_TOKEN sym_identifier, IF (OR (EQ CHR ''T'') (EQ CHR ''t'')) (ADVANCE 195), IF
        (SET sym_identifier_character_set_2 800) (ADVANCE 217)]),
     (211, [ACCEPT_TOKEN sym_identifier, IF (OR (EQ CHR ''T'') (EQ CHR ''t'')) (ADVANCE 165), IF
        (SET sym_identifier_character_set_2 800) (ADVANCE 217)]),
     (212, [ACCEPT_TOKEN sym_identifier, IF (OR (EQ CHR ''T'') (EQ CHR ''t'')) (ADVANCE 185), IF
        (SET sym_identifier_character_set_2 800) (ADVANCE 217)]),
     (213, [ACCEPT_TOKEN sym_identifier, IF (OR (EQ CHR ''T'') (EQ CHR ''t'')) (ADVANCE 189), IF
        (SET sym_identifier_character_set_2 800) (ADVANCE 217)]),
     (214, [ACCEPT_TOKEN sym_identifier, IF (OR (EQ CHR ''T'') (EQ CHR ''t'')) (ADVANCE 196), IF
        (SET sym_identifier_character_set_2 800) (ADVANCE 217)]),
     (215, [ACCEPT_TOKEN sym_identifier, IF (OR (EQ CHR ''Y'') (EQ CHR ''y'')) (ADVANCE 168), IF
        (SET sym_identifier_character_set_2 800) (ADVANCE 217)]),
     (216, [ACCEPT_TOKEN sym_identifier, IF (OR (EQ CHR ''Y'') (EQ CHR ''y'')) (ADVANCE 169), IF
        (SET sym_identifier_character_set_2 800) (ADVANCE 217)])]"

text \<open>Lines 36910 to 36926.\<close>

definition ts_lex_cases_10 :: lex_table where
  "ts_lex_cases_10 =
    [(217, [ACCEPT_TOKEN sym_identifier, IF (SET sym_identifier_character_set_2 800) (ADVANCE
        217)]),
     (218, [ACCEPT_TOKEN sym_adress_identifier, IF (EQ CHR ''I'') (ADVANCE 145), IF (EQ CHR
        ''M'') (ADVANCE 151), IF (EQ CHR ''Q'') (ADVANCE 148), IF (OR (BETWEEN CHR ''A'' CHR
        ''Z'') (BETWEEN CHR ''a'' CHR ''z'')) (ADVANCE 219)]),
     (219, [ACCEPT_TOKEN sym_adress_identifier, IF (OR (BETWEEN CHR ''A'' CHR ''Z'') (BETWEEN CHR
        ''a'' CHR ''z'')) (ADVANCE 219)])]"

definition ts_lex_cases :: lex_table where
  "ts_lex_cases =
     ts_lex_cases_1 @
     ts_lex_cases_2 @
     ts_lex_cases_3 @
     ts_lex_cases_4 @
     ts_lex_cases_5 @
     ts_lex_cases_6 @
     ts_lex_cases_7 @
     ts_lex_cases_8 @
     ts_lex_cases_9 @
     ts_lex_cases_10"

lemmas ts_lex_parts =
  ts_lex_cases_1_def ts_lex_cases_2_def ts_lex_cases_3_def ts_lex_cases_4_def ts_lex_cases_5_def
  ts_lex_cases_6_def ts_lex_cases_7_def ts_lex_cases_8_def ts_lex_cases_9_def ts_lex_cases_10_def

definition ts_lex :: "'s TSLexer \<Rightarrow> TSStateId \<Rightarrow> 's \<Rightarrow> (bool \<times> 's) option" where
  "ts_lex L state s = start_lexer L ts_lex_cases state s"

end
