(* ===== verification/Keyword_Table.thy ===== *)
theory Keyword_Table
  imports Lex_Macros Symbols
begin

text \<open>
  The \<open>switch\<close> of \<open>ts_lex_keywords\<close>, \<open>src/crates/tree-sitter/src/parser.c\<close>: one entry for each
  of its 666 cases, in the order of the file, the statements as the macros write them. The table is
  cut into parts of about 150 lines of the source.
\<close>

text \<open>Lines 36936 to 37079.\<close>

definition ts_lex_keywords_cases_1 :: lex_table where
  "ts_lex_keywords_cases_1 =
    [(0, [ADVANCE_MAP [(CHR ''A'', 1), (CHR ''D'', 2), (CHR ''E'', 3), (CHR ''F'', 4), (CHR
        ''I'', 5), (CHR ''L'', 6), (CHR ''N'', 7), (CHR ''P'', 8), (CHR ''R'', 9), (CHR
        ''S'', 10), (CHR ''T'', 11), (CHR ''W'', 12), (CHR ''_'', 13), (CHR ''a'', 14), (CHR
        ''d'', 15), (CHR ''e'', 16), (CHR ''f'', 17), (CHR ''i'', 18), (CHR ''l'', 19), (CHR
        ''n'', 20), (CHR ''p'', 21), (CHR ''r'', 22), (CHR ''s'', 23), (CHR ''t'', 24), (CHR
        ''w'', 25), (CHR ''B'', 26), (CHR ''b'', 26), (CHR ''C'', 27), (CHR ''c'', 27), (CHR
        ''M'', 28), (CHR ''m'', 28), (CHR ''O'', 29), (CHR ''o'', 29), (CHR ''U'', 30), (CHR
        ''u'', 30), (CHR ''V'', 31), (CHR ''v'', 31), (CHR ''X'', 32), (CHR ''x'', 32)], IF
        (OR (BETWEEN CHR 0x09 CHR 0x0D) (EQ CHR 0x20)) (SKIP 0)]),
     (1, [ADVANCE_MAP [(CHR ''B'', 33), (CHR ''b'', 33), (CHR ''C'', 34), (CHR ''c'', 34), (CHR
        ''N'', 35), (CHR ''n'', 35), (CHR ''R'', 36), (CHR ''r'', 36), (CHR ''T'', 37), (CHR
        ''t'', 37)]]),
     (2, [ACCEPT_TOKEN anon_sym_D, ADVANCE_MAP [(CHR ''A'', 38), (CHR ''a'', 38), (CHR ''I'',
        39), (CHR ''i'', 39), (CHR ''O'', 40), (CHR ''o'', 40), (CHR ''S'', 41), (CHR ''s'',
        41), (CHR ''T'', 42), (CHR ''t'', 42), (CHR ''W'', 43), (CHR ''w'', 43)]]),
     (3, [IF (OR (EQ CHR ''L'') (EQ CHR ''l'')) (ADVANCE 44), IF (OR (EQ CHR ''N'') (EQ CHR
        ''n'')) (ADVANCE 45), IF (OR (EQ CHR ''X'') (EQ CHR ''x'')) (ADVANCE 46)]),
     (4, [ADVANCE_MAP [(CHR ''_'', 47), (CHR ''A'', 48), (CHR ''a'', 48), (CHR ''I'', 49), (CHR
        ''i'', 49), (CHR ''O'', 50), (CHR ''o'', 50), (CHR ''R'', 51), (CHR ''r'', 51), (CHR
        ''U'', 52), (CHR ''u'', 52)]]),
     (5, [IF (OR (EQ CHR ''F'') (EQ CHR ''f'')) (ADVANCE 53), IF (OR (EQ CHR ''M'') (EQ CHR
        ''m'')) (ADVANCE 54), IF (OR (EQ CHR ''N'') (EQ CHR ''n'')) (ADVANCE 55)]),
     (6, [ACCEPT_TOKEN anon_sym_L, ADVANCE_MAP [(CHR ''D'', 56), (CHR ''d'', 56), (CHR ''I'',
        57), (CHR ''i'', 57), (CHR ''R'', 58), (CHR ''r'', 58), (CHR ''T'', 59), (CHR ''t'',
        59), (CHR ''W'', 60), (CHR ''w'', 60)]]),
     (7, [ACCEPT_TOKEN anon_sym_N, IF (OR (EQ CHR ''A'') (EQ CHR ''a'')) (ADVANCE 61), IF (OR (EQ
        CHR ''O'') (EQ CHR ''o'')) (ADVANCE 62), IF (OR (EQ CHR ''U'') (EQ CHR ''u''))
        (ADVANCE 63)]),
     (8, [ACCEPT_TOKEN anon_sym_P, IF (OR (EQ CHR ''R'') (EQ CHR ''r'')) (ADVANCE 64), IF (OR (EQ
        CHR ''U'') (EQ CHR ''u'')) (ADVANCE 65)]),
     (9, [ACCEPT_TOKEN anon_sym_R, IF (EQ CHR ''_'') (ADVANCE 66), IF (OR (EQ CHR ''E'') (EQ CHR
        ''e'')) (ADVANCE 67)])]"

text \<open>Lines 37080 to 37217.\<close>

definition ts_lex_keywords_cases_2 :: lex_table where
  "ts_lex_keywords_cases_2 =
    [(10, [ACCEPT_TOKEN anon_sym_S, ADVANCE_MAP [(CHR ''D'', 68), (CHR ''d'', 68), (CHR ''I'',
        69), (CHR ''i'', 69), (CHR ''L'', 70), (CHR ''l'', 70), (CHR ''T'', 71), (CHR ''t'',
        71), (CHR ''U'', 72), (CHR ''u'', 72)]]),
     (11, [ADVANCE_MAP [(CHR ''A'', 73), (CHR ''a'', 73), (CHR ''H'', 74), (CHR ''h'', 74), (CHR
        ''I'', 75), (CHR ''i'', 75), (CHR ''O'', 76), (CHR ''o'', 76), (CHR ''R'', 77), (CHR
        ''r'', 77), (CHR ''Y'', 78), (CHR ''y'', 78)]]),
     (12, [IF (OR (EQ CHR ''H'') (EQ CHR ''h'')) (ADVANCE 79), IF (OR (EQ CHR ''I'') (EQ CHR
        ''i'')) (ADVANCE 80), IF (OR (EQ CHR ''O'') (EQ CHR ''o'')) (ADVANCE 81)]),
     (13, [IF (EQ CHR ''_'') (ADVANCE 82)]),
     (14, [ADVANCE_MAP [(CHR ''l'', 83), (CHR ''B'', 33), (CHR ''b'', 33), (CHR ''C'', 34), (CHR
        ''c'', 34), (CHR ''N'', 35), (CHR ''n'', 35), (CHR ''R'', 36), (CHR ''r'', 36), (CHR
        ''T'', 37), (CHR ''t'', 37)]]),
     (15, [ADVANCE_MAP [(CHR ''A'', 38), (CHR ''a'', 38), (CHR ''I'', 39), (CHR ''i'', 39), (CHR
        ''O'', 40), (CHR ''o'', 40), (CHR ''S'', 41), (CHR ''s'', 41), (CHR ''T'', 42), (CHR
        ''t'', 42), (CHR ''W'', 43), (CHR ''w'', 43)]]),
     (16, [IF (EQ CHR ''X'') (ADVANCE 46), IF (EQ CHR ''x'') (ADVANCE 84), IF (OR (EQ CHR ''L'')
        (EQ CHR ''l'')) (ADVANCE 44), IF (OR (EQ CHR ''N'') (EQ CHR ''n'')) (ADVANCE 45)]),
     (17, [ADVANCE_MAP [(CHR ''_'', 85), (CHR ''A'', 48), (CHR ''a'', 48), (CHR ''I'', 49), (CHR
        ''i'', 49), (CHR ''O'', 50), (CHR ''o'', 50), (CHR ''R'', 51), (CHR ''r'', 51), (CHR
        ''U'', 52), (CHR ''u'', 52)]]),
     (18, [IF (EQ CHR ''N'') (ADVANCE 55), IF (EQ CHR ''n'') (ADVANCE 86), IF (OR (EQ CHR ''F'')
        (EQ CHR ''f'')) (ADVANCE 53), IF (OR (EQ CHR ''M'') (EQ CHR ''m'')) (ADVANCE 54)]),
     (19, [ADVANCE_MAP [(CHR ''D'', 56), (CHR ''d'', 56), (CHR ''I'', 57), (CHR ''i'', 57), (CHR
        ''R'', 58), (CHR ''r'', 58), (CHR ''T'', 59), (CHR ''t'', 59), (CHR ''W'', 60), (CHR
        ''w'', 60)]]),
     (20, [IF (OR (EQ CHR ''A'') (EQ CHR ''a'')) (ADVANCE 61), IF (OR (EQ CHR ''O'') (EQ CHR
        ''o'')) (ADVANCE 62), IF (OR (EQ CHR ''U'') (EQ CHR ''u'')) (ADVANCE 63)]),
     (21, [IF (EQ CHR ''a'') (ADVANCE 87), IF (OR (EQ CHR ''R'') (EQ CHR ''r'')) (ADVANCE 64), IF
        (OR (EQ CHR ''U'') (EQ CHR ''u'')) (ADVANCE 65)]),
     (22, [IF (EQ CHR ''E'') (ADVANCE 67), IF (EQ CHR ''_'') (ADVANCE 88), IF (EQ CHR ''e'')
        (ADVANCE 89)])]"

text \<open>Lines 37218 to 37364.\<close>

definition ts_lex_keywords_cases_3 :: lex_table where
  "ts_lex_keywords_cases_3 =
    [(23, [ADVANCE_MAP [(CHR ''D'', 68), (CHR ''d'', 68), (CHR ''I'', 69), (CHR ''i'', 69), (CHR
        ''L'', 70), (CHR ''l'', 70), (CHR ''T'', 71), (CHR ''t'', 71), (CHR ''U'', 72), (CHR
        ''u'', 72)]]),
     (24, [ADVANCE_MAP [(CHR ''O'', 76), (CHR ''o'', 90), (CHR ''A'', 73), (CHR ''a'', 73), (CHR
        ''H'', 74), (CHR ''h'', 74), (CHR ''I'', 75), (CHR ''i'', 75), (CHR ''R'', 77), (CHR
        ''r'', 77), (CHR ''Y'', 78), (CHR ''y'', 78)]]),
     (25, [IF (EQ CHR ''a'') (ADVANCE 91), IF (OR (EQ CHR ''H'') (EQ CHR ''h'')) (ADVANCE 79), IF
        (OR (EQ CHR ''I'') (EQ CHR ''i'')) (ADVANCE 80), IF (OR (EQ CHR ''O'') (EQ CHR
        ''o'')) (ADVANCE 81)]),
     (26, [IF (OR (EQ CHR ''O'') (EQ CHR ''o'')) (ADVANCE 92), IF (OR (EQ CHR ''Y'') (EQ CHR
        ''y'')) (ADVANCE 93)]),
     (27, [ADVANCE_MAP [(CHR ''A'', 94), (CHR ''a'', 94), (CHR ''H'', 95), (CHR ''h'', 95), (CHR
        ''L'', 96), (CHR ''l'', 96), (CHR ''O'', 97), (CHR ''o'', 97)]]),
     (28, [ADVANCE_MAP [(CHR ''A'', 98), (CHR ''a'', 98), (CHR ''E'', 99), (CHR ''e'', 99), (CHR
        ''I'', 100), (CHR ''i'', 100), (CHR ''O'', 101), (CHR ''o'', 101)]]),
     (29, [ADVANCE_MAP [(CHR ''F'', 102), (CHR ''f'', 102), (CHR ''N'', 103), (CHR ''n'', 103),
        (CHR ''R'', 104), (CHR ''r'', 104), (CHR ''V'', 105), (CHR ''v'', 105)]]),
     (30, [ADVANCE_MAP [(CHR ''D'', 106), (CHR ''d'', 106), (CHR ''I'', 107), (CHR ''i'', 107),
        (CHR ''L'', 108), (CHR ''l'', 108), (CHR ''N'', 109), (CHR ''n'', 109), (CHR ''S'',
        110), (CHR ''s'', 110)]]),
     (31, [IF (OR (EQ CHR ''A'') (EQ CHR ''a'')) (ADVANCE 111)]),
     (32, [IF (OR (EQ CHR ''O'') (EQ CHR ''o'')) (ADVANCE 112)]),
     (33, [IF (OR (EQ CHR ''S'') (EQ CHR ''s'')) (ADVANCE 113)]),
     (34, [IF (OR (EQ CHR ''T'') (EQ CHR ''t'')) (ADVANCE 114)]),
     (35, [IF (OR (EQ CHR ''D'') (EQ CHR ''d'')) (ADVANCE 115)]),
     (36, [IF (OR (EQ CHR ''R'') (EQ CHR ''r'')) (ADVANCE 116)]),
     (37, [ACCEPT_TOKEN aux_sym_relative_located_at_token1]),
     (38, [IF (OR (EQ CHR ''T'') (EQ CHR ''t'')) (ADVANCE 117)]),
     (39, [IF (OR (EQ CHR ''N'') (EQ CHR ''n'')) (ADVANCE 118)]),
     (40, [ACCEPT_TOKEN aux_sym_for_stmt_token2]),
     (41, [ACCEPT_TOKEN aux_sym_action_qualifier_token2]),
     (42, [ACCEPT_TOKEN sym_dt_type_name]),
     (43, [IF (OR (EQ CHR ''O'') (EQ CHR ''o'')) (ADVANCE 119)]),
     (44, [IF (OR (EQ CHR ''S'') (EQ CHR ''s'')) (ADVANCE 120)])]"

text \<open>Lines 37365 to 37513.\<close>

definition ts_lex_keywords_cases_4 :: lex_table where
  "ts_lex_keywords_cases_4 =
    [(45, [IF (OR (EQ CHR ''D'') (EQ CHR ''d'')) (ADVANCE 121)]),
     (46, [IF (OR (EQ CHR ''I'') (EQ CHR ''i'')) (ADVANCE 122), IF (OR (EQ CHR ''T'') (EQ CHR
        ''t'')) (ADVANCE 123)]),
     (47, [ACCEPT_TOKEN aux_sym_ERR_invalid_edge_qualifier_token1, IF (EQ CHR ''E'') (ADVANCE
        124), IF (EQ CHR ''e'') (ADVANCE 125)]),
     (48, [IF (OR (EQ CHR ''L'') (EQ CHR ''l'')) (ADVANCE 126)]),
     (49, [IF (OR (EQ CHR ''N'') (EQ CHR ''n'')) (ADVANCE 127)]),
     (50, [IF (OR (EQ CHR ''R'') (EQ CHR ''r'')) (ADVANCE 128)]),
     (51, [IF (OR (EQ CHR ''O'') (EQ CHR ''o'')) (ADVANCE 129)]),
     (52, [IF (OR (EQ CHR ''N'') (EQ CHR ''n'')) (ADVANCE 130)]),
     (53, [ACCEPT_TOKEN aux_sym_if_stmt_token1]),
     (54, [IF (OR (EQ CHR ''P'') (EQ CHR ''p'')) (ADVANCE 131)]),
     (55, [IF (OR (EQ CHR ''I'') (EQ CHR ''i'')) (ADVANCE 132), IF (OR (EQ CHR ''T'') (EQ CHR
        ''t'')) (ADVANCE 133)]),
     (56, [IF (OR (EQ CHR ''A'') (EQ CHR ''a'')) (ADVANCE 134), IF (OR (EQ CHR ''T'') (EQ CHR
        ''t'')) (ADVANCE 135)]),
     (57, [IF (OR (EQ CHR ''N'') (EQ CHR ''n'')) (ADVANCE 136)]),
     (58, [IF (OR (EQ CHR ''E'') (EQ CHR ''e'')) (ADVANCE 137)]),
     (59, [IF (OR (EQ CHR ''I'') (EQ CHR ''i'')) (ADVANCE 138), IF (OR (EQ CHR ''O'') (EQ CHR
        ''o'')) (ADVANCE 139)]),
     (60, [IF (OR (EQ CHR ''O'') (EQ CHR ''o'')) (ADVANCE 140)]),
     (61, [IF (OR (EQ CHR ''M'') (EQ CHR ''m'')) (ADVANCE 141)]),
     (62, [IF (OR (EQ CHR ''N'') (EQ CHR ''n'')) (ADVANCE 142), IF (OR (EQ CHR ''T'') (EQ CHR
        ''t'')) (ADVANCE 143)]),
     (63, [IF (OR (EQ CHR ''L'') (EQ CHR ''l'')) (ADVANCE 144)]),
     (64, [IF (OR (EQ CHR ''I'') (EQ CHR ''i'')) (ADVANCE 145), IF (OR (EQ CHR ''O'') (EQ CHR
        ''o'')) (ADVANCE 146)]),
     (65, [IF (OR (EQ CHR ''B'') (EQ CHR ''b'')) (ADVANCE 147)]),
     (66, [ACCEPT_TOKEN aux_sym_ERR_invalid_edge_qualifier_token1, IF (EQ CHR ''E'') (ADVANCE
        148), IF (EQ CHR ''e'') (ADVANCE 149)]),
     (67, [ADVANCE_MAP [(CHR ''A'', 150), (CHR ''a'', 150), (CHR ''F'', 151), (CHR ''f'', 151),
        (CHR ''P'', 152), (CHR ''p'', 152), (CHR ''S'', 153), (CHR ''s'', 153), (CHR ''T'',
        154), (CHR ''t'', 154)]]),
     (68, [ACCEPT_TOKEN aux_sym_action_qualifier_token1]),
     (69, [IF (OR (EQ CHR ''N'') (EQ CHR ''n'')) (ADVANCE 155)]),
     (70, [ACCEPT_TOKEN aux_sym_action_qualifier_token3]),
     (71, [IF (OR (EQ CHR ''E'') (EQ CHR ''e'')) (ADVANCE 156), IF (OR (EQ CHR ''R'') (EQ CHR
        ''r'')) (ADVANCE 157)]),
     (72, [IF (OR (EQ CHR ''P'') (EQ CHR ''p'')) (ADVANCE 158)]),
     (73, [IF (OR (EQ CHR ''S'') (EQ CHR ''s'')) (ADVANCE 159)]),
     (74, [IF (OR (EQ CHR ''E'') (EQ CHR ''e'')) (ADVANCE 160), IF (OR (EQ CHR ''I'') (EQ CHR
        ''i'')) (ADVANCE 161)]),
     (75, [IF (OR (EQ CHR ''M'') (EQ CHR ''m'')) (ADVANCE 162)])]"

text \<open>Lines 37514 to 37662.\<close>

definition ts_lex_keywords_cases_5 :: lex_table where
  "ts_lex_keywords_cases_5 =
    [(76, [ACCEPT_TOKEN aux_sym_transition_token4, IF (OR (EQ CHR ''D'') (EQ CHR ''d'')) (ADVANCE
        163)]),
     (77, [IF (OR (EQ CHR ''A'') (EQ CHR ''a'')) (ADVANCE 164), IF (OR (EQ CHR ''U'') (EQ CHR
        ''u'')) (ADVANCE 165)]),
     (78, [IF (OR (EQ CHR ''P'') (EQ CHR ''p'')) (ADVANCE 166)]),
     (79, [IF (OR (EQ CHR ''I'') (EQ CHR ''i'')) (ADVANCE 167)]),
     (80, [IF (OR (EQ CHR ''T'') (EQ CHR ''t'')) (ADVANCE 168)]),
     (81, [IF (OR (EQ CHR ''R'') (EQ CHR ''r'')) (ADVANCE 169)]),
     (82, [ADVANCE_MAP [(CHR ''C'', 170), (CHR ''c'', 170), (CHR ''E'', 171), (CHR ''e'', 171),
        (CHR ''F'', 172), (CHR ''f'', 172), (CHR ''R'', 173), (CHR ''r'', 173), (CHR ''T'',
        174), (CHR ''t'', 174)]]),
     (83, [IF (EQ CHR ''l'') (ADVANCE 175)]),
     (84, [IF (EQ CHR ''T'') (ADVANCE 123), IF (EQ CHR ''t'') (ADVANCE 176), IF (OR (EQ CHR
        ''I'') (EQ CHR ''i'')) (ADVANCE 122)]),
     (85, [IF (OR (EQ CHR ''E'') (EQ CHR ''e'')) (ADVANCE 125)]),
     (86, [IF (EQ CHR ''f'') (ADVANCE 177), IF (OR (EQ CHR ''I'') (EQ CHR ''i'')) (ADVANCE 132),
        IF (OR (EQ CHR ''T'') (EQ CHR ''t'')) (ADVANCE 133)]),
     (87, [IF (EQ CHR ''r'') (ADVANCE 178)]),
     (88, [IF (OR (EQ CHR ''E'') (EQ CHR ''e'')) (ADVANCE 149)]),
     (89, [ADVANCE_MAP [(CHR ''S'', 153), (CHR ''s'', 179), (CHR ''A'', 150), (CHR ''a'', 150),
        (CHR ''F'', 151), (CHR ''f'', 151), (CHR ''P'', 152), (CHR ''p'', 152), (CHR ''T'',
        154), (CHR ''t'', 154)]]),
     (90, [ACCEPT_TOKEN aux_sym_transition_token4, IF (EQ CHR ''D'') (ADVANCE 163), IF (EQ CHR
        ''d'') (ADVANCE 180)]),
     (91, [IF (EQ CHR ''r'') (ADVANCE 181), IF (EQ CHR ''s'') (ADVANCE 182)]),
     (92, [IF (OR (EQ CHR ''O'') (EQ CHR ''o'')) (ADVANCE 183)]),
     (93, [ACCEPT_TOKEN aux_sym_for_list_token1, IF (OR (EQ CHR ''T'') (EQ CHR ''t'')) (ADVANCE
        184)]),
     (94, [IF (OR (EQ CHR ''S'') (EQ CHR ''s'')) (ADVANCE 185)]),
     (95, [IF (OR (EQ CHR ''A'') (EQ CHR ''a'')) (ADVANCE 186)]),
     (96, [IF (OR (EQ CHR ''A'') (EQ CHR ''a'')) (ADVANCE 187)]),
     (97, [IF (OR (EQ CHR ''N'') (EQ CHR ''n'')) (ADVANCE 188)]),
     (98, [IF (OR (EQ CHR ''X'') (EQ CHR ''x'')) (ADVANCE 189)]),
     (99, [IF (OR (EQ CHR ''T'') (EQ CHR ''t'')) (ADVANCE 190)]),
     (100, [IF (OR (EQ CHR ''N'') (EQ CHR ''n'')) (ADVANCE 191)]),
     (101, [IF (OR (EQ CHR ''D'') (EQ CHR ''d'')) (ADVANCE 192)]),
     (102, [ACCEPT_TOKEN aux_sym_array_type_spec_token2]),
     (103, [ACCEPT_TOKEN aux_sym_resource_decl_token2]),
     (104, [ACCEPT_TOKEN aux_sym_or_operator_token1]),
     (105, [IF (OR (EQ CHR ''E'') (EQ CHR ''e'')) (ADVANCE 193)]),
     (106, [IF (OR (EQ CHR ''I'') (EQ CHR ''i'')) (ADVANCE 194)])]"

text \<open>Lines 37663 to 37812.\<close>

definition ts_lex_keywords_cases_6 :: lex_table where
  "ts_lex_keywords_cases_6 =
    [(107, [IF (OR (EQ CHR ''N'') (EQ CHR ''n'')) (ADVANCE 195)]),
     (108, [IF (OR (EQ CHR ''I'') (EQ CHR ''i'')) (ADVANCE 196)]),
     (109, [IF (OR (EQ CHR ''T'') (EQ CHR ''t'')) (ADVANCE 197)]),
     (110, [IF (OR (EQ CHR ''I'') (EQ CHR ''i'')) (ADVANCE 198)]),
     (111, [IF (OR (EQ CHR ''R'') (EQ CHR ''r'')) (ADVANCE 199)]),
     (112, [IF (OR (EQ CHR ''R'') (EQ CHR ''r'')) (ADVANCE 200)]),
     (113, [IF (OR (EQ CHR ''T'') (EQ CHR ''t'')) (ADVANCE 201)]),
     (114, [IF (OR (EQ CHR ''I'') (EQ CHR ''i'')) (ADVANCE 202)]),
     (115, [ACCEPT_TOKEN aux_sym_and_operator_token1]),
     (116, [IF (OR (EQ CHR ''A'') (EQ CHR ''a'')) (ADVANCE 203)]),
     (117, [IF (OR (EQ CHR ''E'') (EQ CHR ''e'')) (ADVANCE 204)]),
     (118, [IF (OR (EQ CHR ''T'') (EQ CHR ''t'')) (ADVANCE 205)]),
     (119, [IF (OR (EQ CHR ''R'') (EQ CHR ''r'')) (ADVANCE 206)]),
     (120, [IF (OR (EQ CHR ''E'') (EQ CHR ''e'')) (ADVANCE 207), IF (OR (EQ CHR ''I'') (EQ CHR
        ''i'')) (ADVANCE 208)]),
     (121, [IF (EQ CHR ''_'') (ADVANCE 209)]),
     (122, [IF (OR (EQ CHR ''T'') (EQ CHR ''t'')) (ADVANCE 210)]),
     (123, [IF (OR (EQ CHR ''E'') (EQ CHR ''e'')) (ADVANCE 211)]),
     (124, [ACCEPT_TOKEN aux_sym_ERR_invalid_edge_qualifier_token1, IF (EQ CHR ''D'') (ADVANCE
        212), IF (EQ CHR ''d'') (ADVANCE 213)]),
     (125, [IF (OR (EQ CHR ''D'') (EQ CHR ''d'')) (ADVANCE 213)]),
     (126, [IF (OR (EQ CHR ''S'') (EQ CHR ''s'')) (ADVANCE 214)]),
     (127, [IF (OR (EQ CHR ''A'') (EQ CHR ''a'')) (ADVANCE 215)]),
     (128, [ACCEPT_TOKEN aux_sym_for_stmt_token1]),
     (129, [IF (OR (EQ CHR ''M'') (EQ CHR ''m'')) (ADVANCE 216)]),
     (130, [IF (OR (EQ CHR ''C'') (EQ CHR ''c'')) (ADVANCE 217)]),
     (131, [IF (OR (EQ CHR ''L'') (EQ CHR ''l'')) (ADVANCE 218)]),
     (132, [IF (OR (EQ CHR ''T'') (EQ CHR ''t'')) (ADVANCE 219)]),
     (133, [ACCEPT_TOKEN aux_sym_sign_int_type_name_token2, IF (OR (EQ CHR ''E'') (EQ CHR ''e''))
        (ADVANCE 220)]),
     (134, [IF (OR (EQ CHR ''T'') (EQ CHR ''t'')) (ADVANCE 221)]),
     (135, [ACCEPT_TOKEN sym_l_dt_type_name]),
     (136, [IF (OR (EQ CHR ''T'') (EQ CHR ''t'')) (ADVANCE 222)]),
     (137, [IF (OR (EQ CHR ''A'') (EQ CHR ''a'')) (ADVANCE 223)]),
     (138, [IF (OR (EQ CHR ''M'') (EQ CHR ''m'')) (ADVANCE 224)]),
     (139, [IF (OR (EQ CHR ''D'') (EQ CHR ''d'')) (ADVANCE 225)]),
     (140, [IF (OR (EQ CHR ''R'') (EQ CHR ''r'')) (ADVANCE 226)]),
     (141, [IF (OR (EQ CHR ''E'') (EQ CHR ''e'')) (ADVANCE 227)]),
     (142, [IF (EQ CHR ''_'') (ADVANCE 228)]),
     (143, [ACCEPT_TOKEN aux_sym_unary_token1]),
     (144, [IF (OR (EQ CHR ''L'') (EQ CHR ''l'')) (ADVANCE 229)])]"

text \<open>Lines 37813 to 37962.\<close>

definition ts_lex_keywords_cases_7 :: lex_table where
  "ts_lex_keywords_cases_7 =
    [(145, [IF (OR (EQ CHR ''O'') (EQ CHR ''o'')) (ADVANCE 230), IF (OR (EQ CHR ''V'') (EQ CHR
        ''v'')) (ADVANCE 231)]),
     (146, [IF (OR (EQ CHR ''G'') (EQ CHR ''g'')) (ADVANCE 232), IF (OR (EQ CHR ''T'') (EQ CHR
        ''t'')) (ADVANCE 233)]),
     (147, [IF (OR (EQ CHR ''L'') (EQ CHR ''l'')) (ADVANCE 234)]),
     (148, [ACCEPT_TOKEN aux_sym_ERR_invalid_edge_qualifier_token1, IF (EQ CHR ''D'') (ADVANCE
        235), IF (EQ CHR ''d'') (ADVANCE 236)]),
     (149, [IF (OR (EQ CHR ''D'') (EQ CHR ''d'')) (ADVANCE 236)]),
     (150, [IF (OR (EQ CHR ''D'') (EQ CHR ''d'')) (ADVANCE 237), IF (OR (EQ CHR ''L'') (EQ CHR
        ''l'')) (ADVANCE 238)]),
     (151, [ACCEPT_TOKEN aux_sym_ref_addr_token1, IF (EQ CHR ''_'') (ADVANCE 239)]),
     (152, [IF (OR (EQ CHR ''E'') (EQ CHR ''e'')) (ADVANCE 240)]),
     (153, [IF (OR (EQ CHR ''O'') (EQ CHR ''o'')) (ADVANCE 241)]),
     (154, [IF (OR (EQ CHR ''A'') (EQ CHR ''a'')) (ADVANCE 242), IF (OR (EQ CHR ''U'') (EQ CHR
        ''u'')) (ADVANCE 243)]),
     (155, [IF (OR (EQ CHR ''G'') (EQ CHR ''g'')) (ADVANCE 244), IF (OR (EQ CHR ''T'') (EQ CHR
        ''t'')) (ADVANCE 245)]),
     (156, [IF (OR (EQ CHR ''P'') (EQ CHR ''p'')) (ADVANCE 246)]),
     (157, [IF (OR (EQ CHR ''I'') (EQ CHR ''i'')) (ADVANCE 247), IF (OR (EQ CHR ''U'') (EQ CHR
        ''u'')) (ADVANCE 248)]),
     (158, [IF (OR (EQ CHR ''E'') (EQ CHR ''e'')) (ADVANCE 249)]),
     (159, [IF (OR (EQ CHR ''K'') (EQ CHR ''k'')) (ADVANCE 250)]),
     (160, [IF (OR (EQ CHR ''N'') (EQ CHR ''n'')) (ADVANCE 251)]),
     (161, [IF (OR (EQ CHR ''S'') (EQ CHR ''s'')) (ADVANCE 252)]),
     (162, [IF (OR (EQ CHR ''E'') (EQ CHR ''e'')) (ADVANCE 253)]),
     (163, [ACCEPT_TOKEN sym_tod_type_name]),
     (164, [IF (OR (EQ CHR ''N'') (EQ CHR ''n'')) (ADVANCE 254)]),
     (165, [IF (OR (EQ CHR ''E'') (EQ CHR ''e'')) (ADVANCE 255)]),
     (166, [IF (OR (EQ CHR ''E'') (EQ CHR ''e'')) (ADVANCE 256)]),
     (167, [IF (OR (EQ CHR ''L'') (EQ CHR ''l'')) (ADVANCE 257)]),
     (168, [IF (OR (EQ CHR ''H'') (EQ CHR ''h'')) (ADVANCE 258)]),
     (169, [IF (OR (EQ CHR ''D'') (EQ CHR ''d'')) (ADVANCE 259)]),
     (170, [IF (OR (EQ CHR ''A'') (EQ CHR ''a'')) (ADVANCE 260)]),
     (171, [IF (OR (EQ CHR ''N'') (EQ CHR ''n'')) (ADVANCE 261)]),
     (172, [IF (OR (EQ CHR ''I'') (EQ CHR ''i'')) (ADVANCE 262)]),
     (173, [IF (OR (EQ CHR ''A'') (EQ CHR ''a'')) (ADVANCE 263)]),
     (174, [IF (OR (EQ CHR ''R'') (EQ CHR ''r'')) (ADVANCE 264)]),
     (175, [IF (EQ CHR ''o'') (ADVANCE 265)]),
     (176, [IF (EQ CHR ''E'') (ADVANCE 211), IF (EQ CHR ''e'') (ADVANCE 266)]),
     (177, [IF (EQ CHR ''o'') (ADVANCE 267)]),
     (178, [IF (EQ CHR ''a'') (ADVANCE 268)]),
     (179, [IF (EQ CHR ''u'') (ADVANCE 269), IF (OR (EQ CHR ''O'') (EQ CHR ''o'')) (ADVANCE
        241)])]"

text \<open>Lines 37963 to 38109.\<close>

definition ts_lex_keywords_cases_8 :: lex_table where
  "ts_lex_keywords_cases_8 =
    [(180, [ACCEPT_TOKEN sym_tod_type_name, IF (EQ CHR ''o'') (ADVANCE 270)]),
     (181, [IF (EQ CHR ''n'') (ADVANCE 271)]),
     (182, [IF (EQ CHR ''m'') (ADVANCE 272)]),
     (183, [IF (OR (EQ CHR ''L'') (EQ CHR ''l'')) (ADVANCE 273)]),
     (184, [IF (OR (EQ CHR ''E'') (EQ CHR ''e'')) (ADVANCE 274)]),
     (185, [IF (OR (EQ CHR ''E'') (EQ CHR ''e'')) (ADVANCE 275)]),
     (186, [IF (OR (EQ CHR ''R'') (EQ CHR ''r'')) (ADVANCE 276)]),
     (187, [IF (OR (EQ CHR ''S'') (EQ CHR ''s'')) (ADVANCE 277)]),
     (188, [IF (OR (EQ CHR ''F'') (EQ CHR ''f'')) (ADVANCE 278), IF (OR (EQ CHR ''S'') (EQ CHR
        ''s'')) (ADVANCE 279), IF (OR (EQ CHR ''T'') (EQ CHR ''t'')) (ADVANCE 280)]),
     (189, [ACCEPT_TOKEN aux_sym_fold_operator_token2]),
     (190, [IF (OR (EQ CHR ''H'') (EQ CHR ''h'')) (ADVANCE 281)]),
     (191, [ACCEPT_TOKEN aux_sym_fold_operator_token1]),
     (192, [ACCEPT_TOKEN aux_sym_mult_token1]),
     (193, [IF (OR (EQ CHR ''R'') (EQ CHR ''r'')) (ADVANCE 282)]),
     (194, [IF (OR (EQ CHR ''N'') (EQ CHR ''n'')) (ADVANCE 283)]),
     (195, [IF (OR (EQ CHR ''T'') (EQ CHR ''t'')) (ADVANCE 284)]),
     (196, [IF (OR (EQ CHR ''N'') (EQ CHR ''n'')) (ADVANCE 285)]),
     (197, [IF (OR (EQ CHR ''I'') (EQ CHR ''i'')) (ADVANCE 286)]),
     (198, [IF (OR (EQ CHR ''N'') (EQ CHR ''n'')) (ADVANCE 287)]),
     (199, [ACCEPT_TOKEN aux_sym_var_decls_token1, IF (EQ CHR ''_'') (ADVANCE 288)]),
     (200, [ACCEPT_TOKEN aux_sym_xor_operator_token1]),
     (201, [IF (OR (EQ CHR ''R'') (EQ CHR ''r'')) (ADVANCE 289)]),
     (202, [IF (OR (EQ CHR ''O'') (EQ CHR ''o'')) (ADVANCE 290)]),
     (203, [IF (OR (EQ CHR ''Y'') (EQ CHR ''y'')) (ADVANCE 291)]),
     (204, [ACCEPT_TOKEN sym_date_type_name, IF (EQ CHR ''_'') (ADVANCE 292)]),
     (205, [ACCEPT_TOKEN aux_sym_sign_int_type_name_token3]),
     (206, [IF (OR (EQ CHR ''D'') (EQ CHR ''d'')) (ADVANCE 293)]),
     (207, [ACCEPT_TOKEN aux_sym_if_stmt_token3]),
     (208, [IF (OR (EQ CHR ''F'') (EQ CHR ''f'')) (ADVANCE 294)]),
     (209, [ADVANCE_MAP [(CHR ''A'', 295), (CHR ''a'', 295), (CHR ''C'', 296), (CHR ''c'', 296),
        (CHR ''F'', 297), (CHR ''f'', 297), (CHR ''I'', 298), (CHR ''i'', 298), (CHR ''M'',
        299), (CHR ''m'', 299), (CHR ''N'', 300), (CHR ''n'', 300), (CHR ''P'', 301), (CHR
        ''p'', 301), (CHR ''R'', 302), (CHR ''r'', 302), (CHR ''S'', 303), (CHR ''s'', 303),
        (CHR ''T'', 304), (CHR ''t'', 304), (CHR ''V'', 305), (CHR ''v'', 305), (CHR ''W'',
        306), (CHR ''w'', 306)]]),
     (210, [ACCEPT_TOKEN aux_sym__stmt_token2]),
     (211, [IF (OR (EQ CHR ''N'') (EQ CHR ''n'')) (ADVANCE 307)])]"

text \<open>Lines 38110 to 38258.\<close>

definition ts_lex_keywords_cases_9 :: lex_table where
  "ts_lex_keywords_cases_9 =
    [(212, [ACCEPT_TOKEN aux_sym_ERR_invalid_edge_qualifier_token1, IF (EQ CHR ''G'') (ADVANCE
        308), IF (EQ CHR ''g'') (ADVANCE 309)]),
     (213, [IF (OR (EQ CHR ''G'') (EQ CHR ''g'')) (ADVANCE 309)]),
     (214, [IF (OR (EQ CHR ''E'') (EQ CHR ''e'')) (ADVANCE 310)]),
     (215, [IF (OR (EQ CHR ''L'') (EQ CHR ''l'')) (ADVANCE 311)]),
     (216, [ACCEPT_TOKEN aux_sym_transition_token3]),
     (217, [IF (OR (EQ CHR ''T'') (EQ CHR ''t'')) (ADVANCE 312)]),
     (218, [IF (OR (EQ CHR ''E'') (EQ CHR ''e'')) (ADVANCE 313)]),
     (219, [IF (OR (EQ CHR ''I'') (EQ CHR ''i'')) (ADVANCE 314)]),
     (220, [IF (OR (EQ CHR ''R'') (EQ CHR ''r'')) (ADVANCE 315)]),
     (221, [IF (OR (EQ CHR ''E'') (EQ CHR ''e'')) (ADVANCE 316)]),
     (222, [ACCEPT_TOKEN aux_sym_sign_int_type_name_token4]),
     (223, [IF (OR (EQ CHR ''L'') (EQ CHR ''l'')) (ADVANCE 317)]),
     (224, [IF (OR (EQ CHR ''E'') (EQ CHR ''e'')) (ADVANCE 318)]),
     (225, [ACCEPT_TOKEN sym_ltod_type_name]),
     (226, [IF (OR (EQ CHR ''D'') (EQ CHR ''d'')) (ADVANCE 319)]),
     (227, [IF (OR (EQ CHR ''S'') (EQ CHR ''s'')) (ADVANCE 320)]),
     (228, [IF (OR (EQ CHR ''R'') (EQ CHR ''r'')) (ADVANCE 321)]),
     (229, [ACCEPT_TOKEN aux_sym_ref_value_token1]),
     (230, [IF (OR (EQ CHR ''R'') (EQ CHR ''r'')) (ADVANCE 322)]),
     (231, [IF (OR (EQ CHR ''A'') (EQ CHR ''a'')) (ADVANCE 323)]),
     (232, [IF (OR (EQ CHR ''R'') (EQ CHR ''r'')) (ADVANCE 324)]),
     (233, [IF (OR (EQ CHR ''E'') (EQ CHR ''e'')) (ADVANCE 325)]),
     (234, [IF (OR (EQ CHR ''I'') (EQ CHR ''i'')) (ADVANCE 326)]),
     (235, [ACCEPT_TOKEN aux_sym_ERR_invalid_edge_qualifier_token1, IF (EQ CHR ''G'') (ADVANCE
        327), IF (EQ CHR ''g'') (ADVANCE 328)]),
     (236, [IF (OR (EQ CHR ''G'') (EQ CHR ''g'')) (ADVANCE 328)]),
     (237, [IF (EQ CHR ''_'') (ADVANCE 329)]),
     (238, [ACCEPT_TOKEN aux_sym_real_type_name_token1]),
     (239, [IF (OR (EQ CHR ''T'') (EQ CHR ''t'')) (ADVANCE 330)]),
     (240, [IF (OR (EQ CHR ''A'') (EQ CHR ''a'')) (ADVANCE 331)]),
     (241, [IF (OR (EQ CHR ''U'') (EQ CHR ''u'')) (ADVANCE 332)]),
     (242, [IF (OR (EQ CHR ''I'') (EQ CHR ''i'')) (ADVANCE 333)]),
     (243, [IF (OR (EQ CHR ''R'') (EQ CHR ''r'')) (ADVANCE 334)]),
     (244, [IF (OR (EQ CHR ''L'') (EQ CHR ''l'')) (ADVANCE 335)]),
     (245, [ACCEPT_TOKEN aux_sym_sign_int_type_name_token1]),
     (246, [ACCEPT_TOKEN aux_sym_step_token1]),
     (247, [IF (OR (EQ CHR ''N'') (EQ CHR ''n'')) (ADVANCE 336)]),
     (248, [IF (OR (EQ CHR ''C'') (EQ CHR ''c'')) (ADVANCE 337)]),
     (249, [IF (OR (EQ CHR ''R'') (EQ CHR ''r'')) (ADVANCE 338)]),
     (250, [ACCEPT_TOKEN aux_sym_task_config_token1])]"

text \<open>Lines 38259 to 38393.\<close>

definition ts_lex_keywords_cases_10 :: lex_table where
  "ts_lex_keywords_cases_10 =
    [(251, [ACCEPT_TOKEN aux_sym_if_stmt_token2]),
     (252, [ACCEPT_TOKEN aux_sym_ERR_unexpected_this_in_path_token1]),
     (253, [ACCEPT_TOKEN sym_time_type_name, IF (EQ CHR ''_'') (ADVANCE 339)]),
     (254, [IF (OR (EQ CHR ''S'') (EQ CHR ''s'')) (ADVANCE 340)]),
     (255, [ACCEPT_TOKEN aux_sym_bool_literal_with_string_token2]),
     (256, [ACCEPT_TOKEN aux_sym_data_type_decl_token1]),
     (257, [IF (OR (EQ CHR ''E'') (EQ CHR ''e'')) (ADVANCE 341)]),
     (258, [ACCEPT_TOKEN aux_sym_prog_config_token1]),
     (259, [ACCEPT_TOKEN aux_sym_multibits_type_name_token2]),
     (260, [IF (OR (EQ CHR ''T'') (EQ CHR ''t'')) (ADVANCE 342)]),
     (261, [IF (OR (EQ CHR ''D'') (EQ CHR ''d'')) (ADVANCE 343)]),
     (262, [IF (OR (EQ CHR ''N'') (EQ CHR ''n'')) (ADVANCE 344)]),
     (263, [IF (OR (EQ CHR ''I'') (EQ CHR ''i'')) (ADVANCE 345)]),
     (264, [IF (OR (EQ CHR ''Y'') (EQ CHR ''y'')) (ADVANCE 346)]),
     (265, [IF (EQ CHR ''w'') (ADVANCE 347)]),
     (266, [IF (EQ CHR ''r'') (ADVANCE 348), IF (OR (EQ CHR ''N'') (EQ CHR ''n'')) (ADVANCE
        307)]),
     (267, [ACCEPT_TOKEN anon_sym_info]),
     (268, [IF (EQ CHR ''m'') (ADVANCE 349)]),
     (269, [IF (EQ CHR ''l'') (ADVANCE 350)]),
     (270, [IF (EQ CHR ''_'') (ADVANCE 351)]),
     (271, [ACCEPT_TOKEN anon_sym_warn]),
     (272, [ACCEPT_TOKEN anon_sym_wasm]),
     (273, [ACCEPT_TOKEN aux_sym_bit_str_type_name_token1]),
     (274, [ACCEPT_TOKEN aux_sym_multibits_type_name_token1]),
     (275, [ACCEPT_TOKEN aux_sym_case_stmt_token1]),
     (276, [ACCEPT_TOKEN aux_sym_char_name_token1]),
     (277, [IF (OR (EQ CHR ''S'') (EQ CHR ''s'')) (ADVANCE 352)]),
     (278, [IF (OR (EQ CHR ''I'') (EQ CHR ''i'')) (ADVANCE 353)]),
     (279, [IF (OR (EQ CHR ''T'') (EQ CHR ''t'')) (ADVANCE 354)]),
     (280, [IF (OR (EQ CHR ''I'') (EQ CHR ''i'')) (ADVANCE 355)]),
     (281, [IF (OR (EQ CHR ''O'') (EQ CHR ''o'')) (ADVANCE 356)]),
     (282, [IF (OR (EQ CHR ''L'') (EQ CHR ''l'')) (ADVANCE 357), IF (OR (EQ CHR ''R'') (EQ CHR
        ''r'')) (ADVANCE 358)]),
     (283, [IF (OR (EQ CHR ''T'') (EQ CHR ''t'')) (ADVANCE 359)]),
     (284, [ACCEPT_TOKEN aux_sym_unsign_int_type_name_token2]),
     (285, [IF (OR (EQ CHR ''T'') (EQ CHR ''t'')) (ADVANCE 360)]),
     (286, [IF (OR (EQ CHR ''L'') (EQ CHR ''l'')) (ADVANCE 361)]),
     (287, [IF (OR (EQ CHR ''G'') (EQ CHR ''g'')) (ADVANCE 362), IF (OR (EQ CHR ''T'') (EQ CHR
        ''t'')) (ADVANCE 363)])]"

text \<open>Lines 38394 to 38543.\<close>

definition ts_lex_keywords_cases_11 :: lex_table where
  "ts_lex_keywords_cases_11 =
    [(288, [ADVANCE_MAP [(CHR ''A'', 364), (CHR ''a'', 364), (CHR ''C'', 365), (CHR ''c'', 365),
        (CHR ''E'', 366), (CHR ''e'', 366), (CHR ''G'', 367), (CHR ''g'', 367), (CHR ''I'',
        368), (CHR ''i'', 368), (CHR ''O'', 369), (CHR ''o'', 369), (CHR ''T'', 370), (CHR
        ''t'', 370)]]),
     (289, [IF (OR (EQ CHR ''A'') (EQ CHR ''a'')) (ADVANCE 371)]),
     (290, [IF (OR (EQ CHR ''N'') (EQ CHR ''n'')) (ADVANCE 372)]),
     (291, [ACCEPT_TOKEN aux_sym_array_type_spec_token1]),
     (292, [IF (OR (EQ CHR ''A'') (EQ CHR ''a'')) (ADVANCE 373)]),
     (293, [ACCEPT_TOKEN aux_sym_multibits_type_name_token3]),
     (294, [ACCEPT_TOKEN aux_sym_else_if_stmt_token1]),
     (295, [IF (OR (EQ CHR ''C'') (EQ CHR ''c'')) (ADVANCE 374)]),
     (296, [IF (OR (EQ CHR ''A'') (EQ CHR ''a'')) (ADVANCE 375), IF (OR (EQ CHR ''L'') (EQ CHR
        ''l'')) (ADVANCE 376), IF (OR (EQ CHR ''O'') (EQ CHR ''o'')) (ADVANCE 377)]),
     (297, [IF (OR (EQ CHR ''O'') (EQ CHR ''o'')) (ADVANCE 378), IF (OR (EQ CHR ''U'') (EQ CHR
        ''u'')) (ADVANCE 379)]),
     (298, [IF (OR (EQ CHR ''F'') (EQ CHR ''f'')) (ADVANCE 380), IF (OR (EQ CHR ''N'') (EQ CHR
        ''n'')) (ADVANCE 381)]),
     (299, [IF (OR (EQ CHR ''E'') (EQ CHR ''e'')) (ADVANCE 382)]),
     (300, [IF (OR (EQ CHR ''A'') (EQ CHR ''a'')) (ADVANCE 383)]),
     (301, [IF (OR (EQ CHR ''R'') (EQ CHR ''r'')) (ADVANCE 384)]),
     (302, [IF (OR (EQ CHR ''E'') (EQ CHR ''e'')) (ADVANCE 385)]),
     (303, [IF (OR (EQ CHR ''T'') (EQ CHR ''t'')) (ADVANCE 386)]),
     (304, [IF (OR (EQ CHR ''R'') (EQ CHR ''r'')) (ADVANCE 387), IF (OR (EQ CHR ''Y'') (EQ CHR
        ''y'')) (ADVANCE 388)]),
     (305, [IF (OR (EQ CHR ''A'') (EQ CHR ''a'')) (ADVANCE 389)]),
     (306, [IF (OR (EQ CHR ''H'') (EQ CHR ''h'')) (ADVANCE 390)]),
     (307, [IF (OR (EQ CHR ''D'') (EQ CHR ''d'')) (ADVANCE 391)]),
     (308, [ACCEPT_TOKEN aux_sym_ERR_invalid_edge_qualifier_token1, IF (OR (EQ CHR ''E'') (EQ CHR
        ''e'')) (ADVANCE 392)]),
     (309, [IF (OR (EQ CHR ''E'') (EQ CHR ''e'')) (ADVANCE 392)]),
     (310, [ACCEPT_TOKEN aux_sym_bool_literal_with_string_token3]),
     (311, [ACCEPT_TOKEN aux_sym_fb_decl_token2]),
     (312, [IF (OR (EQ CHR ''I'') (EQ CHR ''i'')) (ADVANCE 393)]),
     (313, [IF (OR (EQ CHR ''M'') (EQ CHR ''m'')) (ADVANCE 394)]),
     (314, [IF (OR (EQ CHR ''A'') (EQ CHR ''a'')) (ADVANCE 395)]),
     (315, [IF (OR (EQ CHR ''F'') (EQ CHR ''f'')) (ADVANCE 396), IF (OR (EQ CHR ''N'') (EQ CHR
        ''n'')) (ADVANCE 397), IF (OR (EQ CHR ''V'') (EQ CHR ''v'')) (ADVANCE 398)]),
     (316, [ACCEPT_TOKEN sym_l_date_type_name, IF (EQ CHR ''_'') (ADVANCE 399)]),
     (317, [ACCEPT_TOKEN aux_sym_real_type_name_token2]),
     (318, [ACCEPT_TOKEN sym_l_time_type_name, IF (EQ CHR ''_'') (ADVANCE 400)]),
     (319, [ACCEPT_TOKEN aux_sym_multibits_type_name_token4])]"

text \<open>Lines 38544 to 38691.\<close>

definition ts_lex_keywords_cases_12 :: lex_table where
  "ts_lex_keywords_cases_12 =
    [(320, [IF (OR (EQ CHR ''P'') (EQ CHR ''p'')) (ADVANCE 401)]),
     (321, [IF (OR (EQ CHR ''E'') (EQ CHR ''e'')) (ADVANCE 402)]),
     (322, [IF (OR (EQ CHR ''I'') (EQ CHR ''i'')) (ADVANCE 403)]),
     (323, [IF (OR (EQ CHR ''T'') (EQ CHR ''t'')) (ADVANCE 404)]),
     (324, [IF (OR (EQ CHR ''A'') (EQ CHR ''a'')) (ADVANCE 405)]),
     (325, [IF (OR (EQ CHR ''C'') (EQ CHR ''c'')) (ADVANCE 406)]),
     (326, [IF (OR (EQ CHR ''C'') (EQ CHR ''c'')) (ADVANCE 407)]),
     (327, [ACCEPT_TOKEN aux_sym_ERR_invalid_edge_qualifier_token1, IF (OR (EQ CHR ''E'') (EQ CHR
        ''e'')) (ADVANCE 408)]),
     (328, [IF (OR (EQ CHR ''E'') (EQ CHR ''e'')) (ADVANCE 408)]),
     (329, [IF (OR (EQ CHR ''O'') (EQ CHR ''o'')) (ADVANCE 409), IF (OR (EQ CHR ''W'') (EQ CHR
        ''w'')) (ADVANCE 410)]),
     (330, [IF (OR (EQ CHR ''O'') (EQ CHR ''o'')) (ADVANCE 411)]),
     (331, [IF (OR (EQ CHR ''T'') (EQ CHR ''t'')) (ADVANCE 412)]),
     (332, [IF (OR (EQ CHR ''R'') (EQ CHR ''r'')) (ADVANCE 413)]),
     (333, [IF (OR (EQ CHR ''N'') (EQ CHR ''n'')) (ADVANCE 414)]),
     (334, [IF (OR (EQ CHR ''N'') (EQ CHR ''n'')) (ADVANCE 415)]),
     (335, [IF (OR (EQ CHR ''E'') (EQ CHR ''e'')) (ADVANCE 416)]),
     (336, [IF (OR (EQ CHR ''G'') (EQ CHR ''g'')) (ADVANCE 417)]),
     (337, [IF (OR (EQ CHR ''T'') (EQ CHR ''t'')) (ADVANCE 418)]),
     (338, [ACCEPT_TOKEN aux_sym_ERR_unexpected_super_in_path_token1]),
     (339, [IF (OR (EQ CHR ''O'') (EQ CHR ''o'')) (ADVANCE 419)]),
     (340, [IF (OR (EQ CHR ''I'') (EQ CHR ''i'')) (ADVANCE 420)]),
     (341, [ACCEPT_TOKEN aux_sym_while_stmt_token1]),
     (342, [IF (OR (EQ CHR ''C'') (EQ CHR ''c'')) (ADVANCE 421)]),
     (343, [IF (EQ CHR ''_'') (ADVANCE 422), IF (OR (EQ CHR ''T'') (EQ CHR ''t'')) (ADVANCE
        423)]),
     (344, [IF (OR (EQ CHR ''A'') (EQ CHR ''a'')) (ADVANCE 424)]),
     (345, [IF (OR (EQ CHR ''S'') (EQ CHR ''s'')) (ADVANCE 425)]),
     (346, [ACCEPT_TOKEN aux_sym_try_stmt_token1]),
     (347, [ACCEPT_TOKEN anon_sym_allow]),
     (348, [IF (EQ CHR ''n'') (ADVANCE 426)]),
     (349, [IF (EQ CHR ''s'') (ADVANCE 427)]),
     (350, [IF (EQ CHR ''t'') (ADVANCE 428)]),
     (351, [IF (EQ CHR ''f'') (ADVANCE 429), IF (EQ CHR ''l'') (ADVANCE 430)]),
     (352, [ACCEPT_TOKEN aux_sym_class_decl_token1]),
     (353, [IF (OR (EQ CHR ''G'') (EQ CHR ''g'')) (ADVANCE 431)]),
     (354, [IF (OR (EQ CHR ''A'') (EQ CHR ''a'')) (ADVANCE 432)]),
     (355, [IF (OR (EQ CHR ''N'') (EQ CHR ''n'')) (ADVANCE 433)]),
     (356, [IF (OR (EQ CHR ''D'') (EQ CHR ''d'')) (ADVANCE 434)]),
     (357, [IF (OR (EQ CHR ''A'') (EQ CHR ''a'')) (ADVANCE 435)])]"

text \<open>Lines 38692 to 38839.\<close>

definition ts_lex_keywords_cases_13 :: lex_table where
  "ts_lex_keywords_cases_13 =
    [(358, [IF (OR (EQ CHR ''I'') (EQ CHR ''i'')) (ADVANCE 436)]),
     (359, [ACCEPT_TOKEN aux_sym_unsign_int_type_name_token3]),
     (360, [ACCEPT_TOKEN aux_sym_unsign_int_type_name_token4]),
     (361, [ACCEPT_TOKEN aux_sym_repeat_stmt_token2]),
     (362, [ACCEPT_TOKEN aux_sym_using_directive_token1]),
     (363, [ACCEPT_TOKEN aux_sym_unsign_int_type_name_token1]),
     (364, [IF (OR (EQ CHR ''C'') (EQ CHR ''c'')) (ADVANCE 437)]),
     (365, [IF (OR (EQ CHR ''O'') (EQ CHR ''o'')) (ADVANCE 438)]),
     (366, [IF (OR (EQ CHR ''X'') (EQ CHR ''x'')) (ADVANCE 439)]),
     (367, [IF (OR (EQ CHR ''L'') (EQ CHR ''l'')) (ADVANCE 440)]),
     (368, [IF (OR (EQ CHR ''N'') (EQ CHR ''n'')) (ADVANCE 441)]),
     (369, [IF (OR (EQ CHR ''U'') (EQ CHR ''u'')) (ADVANCE 442)]),
     (370, [IF (OR (EQ CHR ''E'') (EQ CHR ''e'')) (ADVANCE 443)]),
     (371, [IF (OR (EQ CHR ''C'') (EQ CHR ''c'')) (ADVANCE 444)]),
     (372, [ACCEPT_TOKEN aux_sym_action_token1]),
     (373, [IF (OR (EQ CHR ''N'') (EQ CHR ''n'')) (ADVANCE 445)]),
     (374, [IF (OR (EQ CHR ''T'') (EQ CHR ''t'')) (ADVANCE 446)]),
     (375, [IF (OR (EQ CHR ''S'') (EQ CHR ''s'')) (ADVANCE 447)]),
     (376, [IF (OR (EQ CHR ''A'') (EQ CHR ''a'')) (ADVANCE 448)]),
     (377, [IF (OR (EQ CHR ''N'') (EQ CHR ''n'')) (ADVANCE 449)]),
     (378, [IF (OR (EQ CHR ''R'') (EQ CHR ''r'')) (ADVANCE 450)]),
     (379, [IF (OR (EQ CHR ''N'') (EQ CHR ''n'')) (ADVANCE 451)]),
     (380, [ACCEPT_TOKEN aux_sym_if_stmt_token4]),
     (381, [IF (OR (EQ CHR ''T'') (EQ CHR ''t'')) (ADVANCE 452)]),
     (382, [IF (OR (EQ CHR ''T'') (EQ CHR ''t'')) (ADVANCE 453)]),
     (383, [IF (OR (EQ CHR ''M'') (EQ CHR ''m'')) (ADVANCE 454)]),
     (384, [IF (OR (EQ CHR ''O'') (EQ CHR ''o'')) (ADVANCE 455)]),
     (385, [IF (OR (EQ CHR ''P'') (EQ CHR ''p'')) (ADVANCE 456), IF (OR (EQ CHR ''S'') (EQ CHR
        ''s'')) (ADVANCE 457)]),
     (386, [IF (OR (EQ CHR ''E'') (EQ CHR ''e'')) (ADVANCE 458), IF (OR (EQ CHR ''R'') (EQ CHR
        ''r'')) (ADVANCE 459)]),
     (387, [IF (OR (EQ CHR ''A'') (EQ CHR ''a'')) (ADVANCE 460)]),
     (388, [IF (OR (EQ CHR ''P'') (EQ CHR ''p'')) (ADVANCE 461)]),
     (389, [IF (OR (EQ CHR ''R'') (EQ CHR ''r'')) (ADVANCE 462)]),
     (390, [IF (OR (EQ CHR ''I'') (EQ CHR ''i'')) (ADVANCE 463)]),
     (391, [IF (OR (EQ CHR ''S'') (EQ CHR ''s'')) (ADVANCE 464)]),
     (392, [ACCEPT_TOKEN aux_sym_edge_decl_token2]),
     (393, [IF (OR (EQ CHR ''O'') (EQ CHR ''o'')) (ADVANCE 465)]),
     (394, [IF (OR (EQ CHR ''E'') (EQ CHR ''e'')) (ADVANCE 466)]),
     (395, [IF (OR (EQ CHR ''L'') (EQ CHR ''l'')) (ADVANCE 467)])]"

text \<open>Lines 38840 to 38988.\<close>

definition ts_lex_keywords_cases_14 :: lex_table where
  "ts_lex_keywords_cases_14 =
    [(396, [IF (OR (EQ CHR ''A'') (EQ CHR ''a'')) (ADVANCE 468)]),
     (397, [IF (OR (EQ CHR ''A'') (EQ CHR ''a'')) (ADVANCE 469)]),
     (398, [IF (OR (EQ CHR ''A'') (EQ CHR ''a'')) (ADVANCE 470)]),
     (399, [IF (OR (EQ CHR ''A'') (EQ CHR ''a'')) (ADVANCE 471)]),
     (400, [IF (OR (EQ CHR ''O'') (EQ CHR ''o'')) (ADVANCE 472)]),
     (401, [IF (OR (EQ CHR ''A'') (EQ CHR ''a'')) (ADVANCE 473)]),
     (402, [IF (OR (EQ CHR ''T'') (EQ CHR ''t'')) (ADVANCE 474)]),
     (403, [IF (OR (EQ CHR ''T'') (EQ CHR ''t'')) (ADVANCE 475)]),
     (404, [IF (OR (EQ CHR ''E'') (EQ CHR ''e'')) (ADVANCE 476)]),
     (405, [IF (OR (EQ CHR ''M'') (EQ CHR ''m'')) (ADVANCE 477)]),
     (406, [IF (OR (EQ CHR ''T'') (EQ CHR ''t'')) (ADVANCE 478)]),
     (407, [ACCEPT_TOKEN aux_sym_access_spec_token1]),
     (408, [ACCEPT_TOKEN aux_sym_edge_decl_token1]),
     (409, [IF (OR (EQ CHR ''N'') (EQ CHR ''n'')) (ADVANCE 479)]),
     (410, [IF (OR (EQ CHR ''R'') (EQ CHR ''r'')) (ADVANCE 480)]),
     (411, [ACCEPT_TOKEN aux_sym_ref_type_spec_token1]),
     (412, [ACCEPT_TOKEN aux_sym_repeat_stmt_token1]),
     (413, [IF (OR (EQ CHR ''C'') (EQ CHR ''c'')) (ADVANCE 481)]),
     (414, [ACCEPT_TOKEN aux_sym_ERR_doubled_qualifier_token1]),
     (415, [ACCEPT_TOKEN aux_sym__stmt_token1]),
     (416, [ACCEPT_TOKEN aux_sym_ERR_single_after_interval_token1]),
     (417, [ACCEPT_TOKEN aux_sym_string_name_token1]),
     (418, [ACCEPT_TOKEN aux_sym_struct_type_spec_token1]),
     (419, [IF (OR (EQ CHR ''F'') (EQ CHR ''f'')) (ADVANCE 482)]),
     (420, [IF (OR (EQ CHR ''T'') (EQ CHR ''t'')) (ADVANCE 483)]),
     (421, [IF (OR (EQ CHR ''H'') (EQ CHR ''h'')) (ADVANCE 484)]),
     (422, [IF (OR (EQ CHR ''T'') (EQ CHR ''t'')) (ADVANCE 485)]),
     (423, [IF (OR (EQ CHR ''R'') (EQ CHR ''r'')) (ADVANCE 486)]),
     (424, [IF (OR (EQ CHR ''L'') (EQ CHR ''l'')) (ADVANCE 487)]),
     (425, [IF (OR (EQ CHR ''E'') (EQ CHR ''e'')) (ADVANCE 488)]),
     (426, [ACCEPT_TOKEN anon_sym_extern]),
     (427, [ACCEPT_TOKEN anon_sym_params]),
     (428, [ACCEPT_TOKEN anon_sym_result]),
     (429, [IF (EQ CHR ''b'') (ADVANCE 489)]),
     (430, [IF (EQ CHR ''a'') (ADVANCE 490)]),
     (431, [IF (OR (EQ CHR ''U'') (EQ CHR ''u'')) (ADVANCE 491)]),
     (432, [IF (OR (EQ CHR ''N'') (EQ CHR ''n'')) (ADVANCE 492)]),
     (433, [IF (OR (EQ CHR ''U'') (EQ CHR ''u'')) (ADVANCE 493)]),
     (434, [ACCEPT_TOKEN aux_sym_method_decl_token1]),
     (435, [IF (OR (EQ CHR ''P'') (EQ CHR ''p'')) (ADVANCE 494)]),
     (436, [IF (OR (EQ CHR ''D'') (EQ CHR ''d'')) (ADVANCE 495)])]"

text \<open>Lines 38989 to 39137.\<close>

definition ts_lex_keywords_cases_15 :: lex_table where
  "ts_lex_keywords_cases_15 =
    [(437, [IF (OR (EQ CHR ''C'') (EQ CHR ''c'')) (ADVANCE 496)]),
     (438, [IF (OR (EQ CHR ''N'') (EQ CHR ''n'')) (ADVANCE 497)]),
     (439, [IF (OR (EQ CHR ''T'') (EQ CHR ''t'')) (ADVANCE 498)]),
     (440, [IF (OR (EQ CHR ''O'') (EQ CHR ''o'')) (ADVANCE 499)]),
     (441, [IF (EQ CHR ''_'') (ADVANCE 500), IF (OR (EQ CHR ''P'') (EQ CHR ''p'')) (ADVANCE
        501)]),
     (442, [IF (OR (EQ CHR ''T'') (EQ CHR ''t'')) (ADVANCE 502)]),
     (443, [IF (OR (EQ CHR ''M'') (EQ CHR ''m'')) (ADVANCE 503)]),
     (444, [IF (OR (EQ CHR ''T'') (EQ CHR ''t'')) (ADVANCE 504)]),
     (445, [IF (OR (EQ CHR ''D'') (EQ CHR ''d'')) (ADVANCE 505)]),
     (446, [IF (OR (EQ CHR ''I'') (EQ CHR ''i'')) (ADVANCE 506)]),
     (447, [IF (OR (EQ CHR ''E'') (EQ CHR ''e'')) (ADVANCE 507)]),
     (448, [IF (OR (EQ CHR ''S'') (EQ CHR ''s'')) (ADVANCE 508)]),
     (449, [IF (OR (EQ CHR ''F'') (EQ CHR ''f'')) (ADVANCE 509)]),
     (450, [ACCEPT_TOKEN aux_sym_for_stmt_token3]),
     (451, [IF (OR (EQ CHR ''C'') (EQ CHR ''c'')) (ADVANCE 510)]),
     (452, [IF (OR (EQ CHR ''E'') (EQ CHR ''e'')) (ADVANCE 511)]),
     (453, [IF (OR (EQ CHR ''H'') (EQ CHR ''h'')) (ADVANCE 512)]),
     (454, [IF (OR (EQ CHR ''E'') (EQ CHR ''e'')) (ADVANCE 513)]),
     (455, [IF (OR (EQ CHR ''G'') (EQ CHR ''g'')) (ADVANCE 514)]),
     (456, [IF (OR (EQ CHR ''E'') (EQ CHR ''e'')) (ADVANCE 515)]),
     (457, [IF (OR (EQ CHR ''O'') (EQ CHR ''o'')) (ADVANCE 516)]),
     (458, [IF (OR (EQ CHR ''P'') (EQ CHR ''p'')) (ADVANCE 517)]),
     (459, [IF (OR (EQ CHR ''U'') (EQ CHR ''u'')) (ADVANCE 518)]),
     (460, [IF (OR (EQ CHR ''N'') (EQ CHR ''n'')) (ADVANCE 519)]),
     (461, [IF (OR (EQ CHR ''E'') (EQ CHR ''e'')) (ADVANCE 520)]),
     (462, [ACCEPT_TOKEN aux_sym_input_decls_token2]),
     (463, [IF (OR (EQ CHR ''L'') (EQ CHR ''l'')) (ADVANCE 521)]),
     (464, [ACCEPT_TOKEN aux_sym_ERR_extends_multiple_times_token1]),
     (465, [IF (OR (EQ CHR ''N'') (EQ CHR ''n'')) (ADVANCE 522)]),
     (466, [IF (OR (EQ CHR ''N'') (EQ CHR ''n'')) (ADVANCE 523)]),
     (467, [IF (EQ CHR ''_'') (ADVANCE 524)]),
     (468, [IF (OR (EQ CHR ''C'') (EQ CHR ''c'')) (ADVANCE 525)]),
     (469, [IF (OR (EQ CHR ''L'') (EQ CHR ''l'')) (ADVANCE 526)]),
     (470, [IF (OR (EQ CHR ''L'') (EQ CHR ''l'')) (ADVANCE 527)]),
     (471, [IF (OR (EQ CHR ''N'') (EQ CHR ''n'')) (ADVANCE 528)]),
     (472, [IF (OR (EQ CHR ''F'') (EQ CHR ''f'')) (ADVANCE 529)]),
     (473, [IF (OR (EQ CHR ''C'') (EQ CHR ''c'')) (ADVANCE 530)]),
     (474, [IF (OR (EQ CHR ''A'') (EQ CHR ''a'')) (ADVANCE 531)])]"

text \<open>Lines 39138 to 39286.\<close>

definition ts_lex_keywords_cases_16 :: lex_table where
  "ts_lex_keywords_cases_16 =
    [(475, [IF (OR (EQ CHR ''Y'') (EQ CHR ''y'')) (ADVANCE 532)]),
     (476, [ACCEPT_TOKEN aux_sym_access_spec_token3]),
     (477, [ACCEPT_TOKEN aux_sym_prog_decl_token1]),
     (478, [IF (OR (EQ CHR ''E'') (EQ CHR ''e'')) (ADVANCE 533)]),
     (479, [IF (OR (EQ CHR ''L'') (EQ CHR ''l'')) (ADVANCE 534)]),
     (480, [IF (OR (EQ CHR ''I'') (EQ CHR ''i'')) (ADVANCE 535)]),
     (481, [IF (OR (EQ CHR ''E'') (EQ CHR ''e'')) (ADVANCE 536)]),
     (482, [IF (EQ CHR ''_'') (ADVANCE 537)]),
     (483, [IF (OR (EQ CHR ''I'') (EQ CHR ''i'')) (ADVANCE 538)]),
     (484, [ACCEPT_TOKEN aux_sym_catch_clause_token1]),
     (485, [IF (OR (EQ CHR ''R'') (EQ CHR ''r'')) (ADVANCE 539)]),
     (486, [IF (OR (EQ CHR ''Y'') (EQ CHR ''y'')) (ADVANCE 540)]),
     (487, [IF (OR (EQ CHR ''L'') (EQ CHR ''l'')) (ADVANCE 541)]),
     (488, [ACCEPT_TOKEN aux_sym_raise_stmt_token1]),
     (489, [IF (EQ CHR ''d'') (ADVANCE 542)]),
     (490, [IF (EQ CHR ''d'') (ADVANCE 543)]),
     (491, [IF (OR (EQ CHR ''R'') (EQ CHR ''r'')) (ADVANCE 544)]),
     (492, [IF (OR (EQ CHR ''T'') (EQ CHR ''t'')) (ADVANCE 545)]),
     (493, [IF (OR (EQ CHR ''E'') (EQ CHR ''e'')) (ADVANCE 546)]),
     (494, [ACCEPT_TOKEN aux_sym_struct_type_spec_token2]),
     (495, [IF (OR (EQ CHR ''E'') (EQ CHR ''e'')) (ADVANCE 547)]),
     (496, [IF (OR (EQ CHR ''E'') (EQ CHR ''e'')) (ADVANCE 548)]),
     (497, [IF (OR (EQ CHR ''F'') (EQ CHR ''f'')) (ADVANCE 549)]),
     (498, [IF (OR (EQ CHR ''E'') (EQ CHR ''e'')) (ADVANCE 550)]),
     (499, [IF (OR (EQ CHR ''B'') (EQ CHR ''b'')) (ADVANCE 551)]),
     (500, [IF (OR (EQ CHR ''O'') (EQ CHR ''o'')) (ADVANCE 552)]),
     (501, [IF (OR (EQ CHR ''U'') (EQ CHR ''u'')) (ADVANCE 553)]),
     (502, [IF (OR (EQ CHR ''P'') (EQ CHR ''p'')) (ADVANCE 554)]),
     (503, [IF (OR (EQ CHR ''P'') (EQ CHR ''p'')) (ADVANCE 555)]),
     (504, [ACCEPT_TOKEN aux_sym_fb_decl_token3]),
     (505, [IF (EQ CHR ''_'') (ADVANCE 556)]),
     (506, [IF (OR (EQ CHR ''O'') (EQ CHR ''o'')) (ADVANCE 557)]),
     (507, [ACCEPT_TOKEN aux_sym_case_stmt_token2]),
     (508, [IF (OR (EQ CHR ''S'') (EQ CHR ''s'')) (ADVANCE 558)]),
     (509, [IF (OR (EQ CHR ''I'') (EQ CHR ''i'')) (ADVANCE 559)]),
     (510, [IF (OR (EQ CHR ''T'') (EQ CHR ''t'')) (ADVANCE 560)]),
     (511, [IF (OR (EQ CHR ''R'') (EQ CHR ''r'')) (ADVANCE 561)]),
     (512, [IF (OR (EQ CHR ''O'') (EQ CHR ''o'')) (ADVANCE 562)]),
     (513, [IF (OR (EQ CHR ''S'') (EQ CHR ''s'')) (ADVANCE 563)]),
     (514, [IF (OR (EQ CHR ''R'') (EQ CHR ''r'')) (ADVANCE 564)])]"

text \<open>Lines 39287 to 39436.\<close>

definition ts_lex_keywords_cases_17 :: lex_table where
  "ts_lex_keywords_cases_17 =
    [(515, [IF (OR (EQ CHR ''A'') (EQ CHR ''a'')) (ADVANCE 565)]),
     (516, [IF (OR (EQ CHR ''U'') (EQ CHR ''u'')) (ADVANCE 566)]),
     (517, [ACCEPT_TOKEN aux_sym_initial_step_token2]),
     (518, [IF (OR (EQ CHR ''C'') (EQ CHR ''c'')) (ADVANCE 567)]),
     (519, [IF (OR (EQ CHR ''S'') (EQ CHR ''s'')) (ADVANCE 568)]),
     (520, [ACCEPT_TOKEN aux_sym_data_type_decl_token2]),
     (521, [IF (OR (EQ CHR ''E'') (EQ CHR ''e'')) (ADVANCE 569)]),
     (522, [ACCEPT_TOKEN aux_sym_func_decl_token1, IF (EQ CHR ''_'') (ADVANCE 570)]),
     (523, [IF (OR (EQ CHR ''T'') (EQ CHR ''t'')) (ADVANCE 571)]),
     (524, [IF (OR (EQ CHR ''S'') (EQ CHR ''s'')) (ADVANCE 572)]),
     (525, [IF (OR (EQ CHR ''E'') (EQ CHR ''e'')) (ADVANCE 573)]),
     (526, [ACCEPT_TOKEN aux_sym_access_spec_token4]),
     (527, [ACCEPT_TOKEN aux_sym_ERR_interval_after_priority_token1]),
     (528, [IF (OR (EQ CHR ''D'') (EQ CHR ''d'')) (ADVANCE 574)]),
     (529, [IF (EQ CHR ''_'') (ADVANCE 575)]),
     (530, [IF (OR (EQ CHR ''E'') (EQ CHR ''e'')) (ADVANCE 576)]),
     (531, [IF (OR (EQ CHR ''I'') (EQ CHR ''i'')) (ADVANCE 577)]),
     (532, [ACCEPT_TOKEN aux_sym_transition_token2]),
     (533, [IF (OR (EQ CHR ''D'') (EQ CHR ''d'')) (ADVANCE 578)]),
     (534, [IF (OR (EQ CHR ''Y'') (EQ CHR ''y'')) (ADVANCE 579)]),
     (535, [IF (OR (EQ CHR ''T'') (EQ CHR ''t'')) (ADVANCE 580)]),
     (536, [ACCEPT_TOKEN aux_sym_resource_decl_token1]),
     (537, [IF (OR (EQ CHR ''D'') (EQ CHR ''d'')) (ADVANCE 581)]),
     (538, [IF (OR (EQ CHR ''O'') (EQ CHR ''o'')) (ADVANCE 582)]),
     (539, [IF (OR (EQ CHR ''Y'') (EQ CHR ''y'')) (ADVANCE 583)]),
     (540, [ACCEPT_TOKEN aux_sym_ERR_end_try_spelling_token1]),
     (541, [IF (OR (EQ CHR ''Y'') (EQ CHR ''y'')) (ADVANCE 584)]),
     (542, [ACCEPT_TOKEN sym_fbd_network]),
     (543, [ACCEPT_TOKEN sym_ld_rung]),
     (544, [IF (OR (EQ CHR ''A'') (EQ CHR ''a'')) (ADVANCE 585)]),
     (545, [ACCEPT_TOKEN aux_sym_ERR_doubled_retain_token1]),
     (546, [ACCEPT_TOKEN aux_sym__stmt_token3]),
     (547, [ACCEPT_TOKEN aux_sym_method_decl_token2]),
     (548, [IF (OR (EQ CHR ''S'') (EQ CHR ''s'')) (ADVANCE 586)]),
     (549, [IF (OR (EQ CHR ''I'') (EQ CHR ''i'')) (ADVANCE 587)]),
     (550, [IF (OR (EQ CHR ''R'') (EQ CHR ''r'')) (ADVANCE 588)]),
     (551, [IF (OR (EQ CHR ''A'') (EQ CHR ''a'')) (ADVANCE 589)]),
     (552, [IF (OR (EQ CHR ''U'') (EQ CHR ''u'')) (ADVANCE 590)]),
     (553, [IF (OR (EQ CHR ''T'') (EQ CHR ''t'')) (ADVANCE 591)]),
     (554, [IF (OR (EQ CHR ''U'') (EQ CHR ''u'')) (ADVANCE 592)]),
     (555, [ACCEPT_TOKEN aux_sym_temp_var_decls_token1])]"

text \<open>Lines 39437 to 39585.\<close>

definition ts_lex_keywords_cases_18 :: lex_table where
  "ts_lex_keywords_cases_18 =
    [(556, [IF (OR (EQ CHR ''T'') (EQ CHR ''t'')) (ADVANCE 593)]),
     (557, [IF (OR (EQ CHR ''N'') (EQ CHR ''n'')) (ADVANCE 594)]),
     (558, [ACCEPT_TOKEN aux_sym_class_decl_token2]),
     (559, [IF (OR (EQ CHR ''G'') (EQ CHR ''g'')) (ADVANCE 595)]),
     (560, [IF (OR (EQ CHR ''I'') (EQ CHR ''i'')) (ADVANCE 596)]),
     (561, [IF (OR (EQ CHR ''F'') (EQ CHR ''f'')) (ADVANCE 597)]),
     (562, [IF (OR (EQ CHR ''D'') (EQ CHR ''d'')) (ADVANCE 598)]),
     (563, [IF (OR (EQ CHR ''P'') (EQ CHR ''p'')) (ADVANCE 599)]),
     (564, [IF (OR (EQ CHR ''A'') (EQ CHR ''a'')) (ADVANCE 600)]),
     (565, [IF (OR (EQ CHR ''T'') (EQ CHR ''t'')) (ADVANCE 601)]),
     (566, [IF (OR (EQ CHR ''R'') (EQ CHR ''r'')) (ADVANCE 602)]),
     (567, [IF (OR (EQ CHR ''T'') (EQ CHR ''t'')) (ADVANCE 603)]),
     (568, [IF (OR (EQ CHR ''I'') (EQ CHR ''i'')) (ADVANCE 604)]),
     (569, [ACCEPT_TOKEN aux_sym_while_stmt_token2]),
     (570, [IF (OR (EQ CHR ''B'') (EQ CHR ''b'')) (ADVANCE 605)]),
     (571, [IF (OR (EQ CHR ''S'') (EQ CHR ''s'')) (ADVANCE 606)]),
     (572, [IF (OR (EQ CHR ''T'') (EQ CHR ''t'')) (ADVANCE 607)]),
     (573, [ACCEPT_TOKEN aux_sym_interface_decl_token1]),
     (574, [IF (EQ CHR ''_'') (ADVANCE 608)]),
     (575, [IF (OR (EQ CHR ''D'') (EQ CHR ''d'')) (ADVANCE 609)]),
     (576, [ACCEPT_TOKEN aux_sym_namespace_decl_token1]),
     (577, [IF (OR (EQ CHR ''N'') (EQ CHR ''n'')) (ADVANCE 610)]),
     (578, [ACCEPT_TOKEN aux_sym_access_spec_token2]),
     (579, [ACCEPT_TOKEN aux_sym_access_direction_token2]),
     (580, [IF (OR (EQ CHR ''E'') (EQ CHR ''e'')) (ADVANCE 611)]),
     (581, [IF (OR (EQ CHR ''A'') (EQ CHR ''a'')) (ADVANCE 612)]),
     (582, [IF (OR (EQ CHR ''N'') (EQ CHR ''n'')) (ADVANCE 613)]),
     (583, [ACCEPT_TOKEN aux_sym_try_stmt_token2]),
     (584, [ACCEPT_TOKEN aux_sym_finally_clause_token1]),
     (585, [IF (OR (EQ CHR ''T'') (EQ CHR ''t'')) (ADVANCE 614)]),
     (586, [IF (OR (EQ CHR ''S'') (EQ CHR ''s'')) (ADVANCE 615)]),
     (587, [IF (OR (EQ CHR ''G'') (EQ CHR ''g'')) (ADVANCE 616)]),
     (588, [IF (OR (EQ CHR ''N'') (EQ CHR ''n'')) (ADVANCE 617)]),
     (589, [IF (OR (EQ CHR ''L'') (EQ CHR ''l'')) (ADVANCE 618)]),
     (590, [IF (OR (EQ CHR ''T'') (EQ CHR ''t'')) (ADVANCE 619)]),
     (591, [ACCEPT_TOKEN aux_sym_input_decls_token1]),
     (592, [IF (OR (EQ CHR ''T'') (EQ CHR ''t'')) (ADVANCE 620)]),
     (593, [IF (OR (EQ CHR ''I'') (EQ CHR ''i'')) (ADVANCE 621)]),
     (594, [ACCEPT_TOKEN aux_sym_action_token2]),
     (595, [IF (OR (EQ CHR ''U'') (EQ CHR ''u'')) (ADVANCE 622)])]"

text \<open>Lines 39586 to 39732.\<close>

definition ts_lex_keywords_cases_19 :: lex_table where
  "ts_lex_keywords_cases_19 =
    [(596, [IF (OR (EQ CHR ''O'') (EQ CHR ''o'')) (ADVANCE 623)]),
     (597, [IF (OR (EQ CHR ''A'') (EQ CHR ''a'')) (ADVANCE 624)]),
     (598, [ACCEPT_TOKEN aux_sym_method_decl_token3]),
     (599, [IF (OR (EQ CHR ''A'') (EQ CHR ''a'')) (ADVANCE 625)]),
     (600, [IF (OR (EQ CHR ''M'') (EQ CHR ''m'')) (ADVANCE 626)]),
     (601, [ACCEPT_TOKEN aux_sym_repeat_stmt_token3]),
     (602, [IF (OR (EQ CHR ''C'') (EQ CHR ''c'')) (ADVANCE 627)]),
     (603, [ACCEPT_TOKEN aux_sym_struct_type_spec_token3]),
     (604, [IF (OR (EQ CHR ''T'') (EQ CHR ''t'')) (ADVANCE 628)]),
     (605, [IF (OR (EQ CHR ''L'') (EQ CHR ''l'')) (ADVANCE 629)]),
     (606, [ACCEPT_TOKEN aux_sym_ERR_implements_before_extends_token1]),
     (607, [IF (OR (EQ CHR ''E'') (EQ CHR ''e'')) (ADVANCE 630)]),
     (608, [IF (OR (EQ CHR ''T'') (EQ CHR ''t'')) (ADVANCE 631)]),
     (609, [IF (OR (EQ CHR ''A'') (EQ CHR ''a'')) (ADVANCE 632)]),
     (610, [ACCEPT_TOKEN aux_sym_ERR_doubled_qualifier_token2]),
     (611, [ACCEPT_TOKEN aux_sym_access_direction_token1]),
     (612, [IF (OR (EQ CHR ''Y'') (EQ CHR ''y'')) (ADVANCE 163)]),
     (613, [ACCEPT_TOKEN aux_sym_transition_token1]),
     (614, [IF (OR (EQ CHR ''I'') (EQ CHR ''i'')) (ADVANCE 633)]),
     (615, [ACCEPT_TOKEN aux_sym_prog_access_decls_token1]),
     (616, [ACCEPT_TOKEN aux_sym_config_init_token1]),
     (617, [IF (OR (EQ CHR ''A'') (EQ CHR ''a'')) (ADVANCE 634)]),
     (618, [ACCEPT_TOKEN aux_sym_global_var_decls_token1]),
     (619, [ACCEPT_TOKEN aux_sym_in_out_decls_token1]),
     (620, [ACCEPT_TOKEN aux_sym_output_decls_token1]),
     (621, [IF (OR (EQ CHR ''M'') (EQ CHR ''m'')) (ADVANCE 635)]),
     (622, [IF (OR (EQ CHR ''R'') (EQ CHR ''r'')) (ADVANCE 636)]),
     (623, [IF (OR (EQ CHR ''N'') (EQ CHR ''n'')) (ADVANCE 637)]),
     (624, [IF (OR (EQ CHR ''C'') (EQ CHR ''c'')) (ADVANCE 638)]),
     (625, [IF (OR (EQ CHR ''C'') (EQ CHR ''c'')) (ADVANCE 639)]),
     (626, [ACCEPT_TOKEN aux_sym_prog_decl_token2]),
     (627, [IF (OR (EQ CHR ''E'') (EQ CHR ''e'')) (ADVANCE 640)]),
     (628, [IF (OR (EQ CHR ''I'') (EQ CHR ''i'')) (ADVANCE 641)]),
     (629, [IF (OR (EQ CHR ''O'') (EQ CHR ''o'')) (ADVANCE 642)]),
     (630, [IF (OR (EQ CHR ''P'') (EQ CHR ''p'')) (ADVANCE 643)]),
     (631, [IF (OR (EQ CHR ''I'') (EQ CHR ''i'')) (ADVANCE 644)]),
     (632, [IF (OR (EQ CHR ''Y'') (EQ CHR ''y'')) (ADVANCE 225)]),
     (633, [IF (OR (EQ CHR ''O'') (EQ CHR ''o'')) (ADVANCE 645)]),
     (634, [IF (OR (EQ CHR ''L'') (EQ CHR ''l'')) (ADVANCE 646)]),
     (635, [IF (OR (EQ CHR ''E'') (EQ CHR ''e'')) (ADVANCE 42)])]"

text \<open>Lines 39733 to 39842.\<close>

definition ts_lex_keywords_cases_20 :: lex_table where
  "ts_lex_keywords_cases_20 =
    [(636, [IF (OR (EQ CHR ''A'') (EQ CHR ''a'')) (ADVANCE 647)]),
     (637, [ACCEPT_TOKEN aux_sym_func_decl_token2, IF (EQ CHR ''_'') (ADVANCE 648)]),
     (638, [IF (OR (EQ CHR ''E'') (EQ CHR ''e'')) (ADVANCE 649)]),
     (639, [IF (OR (EQ CHR ''E'') (EQ CHR ''e'')) (ADVANCE 650)]),
     (640, [ACCEPT_TOKEN aux_sym_resource_decl_token3]),
     (641, [IF (OR (EQ CHR ''O'') (EQ CHR ''o'')) (ADVANCE 651)]),
     (642, [IF (OR (EQ CHR ''C'') (EQ CHR ''c'')) (ADVANCE 652)]),
     (643, [ACCEPT_TOKEN aux_sym_initial_step_token1]),
     (644, [IF (OR (EQ CHR ''M'') (EQ CHR ''m'')) (ADVANCE 653)]),
     (645, [IF (OR (EQ CHR ''N'') (EQ CHR ''n'')) (ADVANCE 654)]),
     (646, [ACCEPT_TOKEN aux_sym_external_var_decls_token1]),
     (647, [IF (OR (EQ CHR ''T'') (EQ CHR ''t'')) (ADVANCE 655)]),
     (648, [IF (OR (EQ CHR ''B'') (EQ CHR ''b'')) (ADVANCE 656)]),
     (649, [ACCEPT_TOKEN aux_sym_interface_decl_token2]),
     (650, [ACCEPT_TOKEN aux_sym_namespace_decl_token2]),
     (651, [IF (OR (EQ CHR ''N'') (EQ CHR ''n'')) (ADVANCE 657)]),
     (652, [IF (OR (EQ CHR ''K'') (EQ CHR ''k'')) (ADVANCE 658)]),
     (653, [IF (OR (EQ CHR ''E'') (EQ CHR ''e'')) (ADVANCE 135)]),
     (654, [ACCEPT_TOKEN aux_sym_config_decl_token1]),
     (655, [IF (OR (EQ CHR ''I'') (EQ CHR ''i'')) (ADVANCE 659)]),
     (656, [IF (OR (EQ CHR ''L'') (EQ CHR ''l'')) (ADVANCE 660)]),
     (657, [ACCEPT_TOKEN aux_sym_transition_token5]),
     (658, [ACCEPT_TOKEN aux_sym_fb_decl_token1]),
     (659, [IF (OR (EQ CHR ''O'') (EQ CHR ''o'')) (ADVANCE 661)]),
     (660, [IF (OR (EQ CHR ''O'') (EQ CHR ''o'')) (ADVANCE 662)]),
     (661, [IF (OR (EQ CHR ''N'') (EQ CHR ''n'')) (ADVANCE 663)]),
     (662, [IF (OR (EQ CHR ''C'') (EQ CHR ''c'')) (ADVANCE 664)]),
     (663, [ACCEPT_TOKEN aux_sym_config_decl_token2]),
     (664, [IF (OR (EQ CHR ''K'') (EQ CHR ''k'')) (ADVANCE 665)]),
     (665, [ACCEPT_TOKEN aux_sym_fb_decl_token4])]"

definition ts_lex_keywords_cases :: lex_table where
  "ts_lex_keywords_cases =
     ts_lex_keywords_cases_1 @
     ts_lex_keywords_cases_2 @
     ts_lex_keywords_cases_3 @
     ts_lex_keywords_cases_4 @
     ts_lex_keywords_cases_5 @
     ts_lex_keywords_cases_6 @
     ts_lex_keywords_cases_7 @
     ts_lex_keywords_cases_8 @
     ts_lex_keywords_cases_9 @
     ts_lex_keywords_cases_10 @
     ts_lex_keywords_cases_11 @
     ts_lex_keywords_cases_12 @
     ts_lex_keywords_cases_13 @
     ts_lex_keywords_cases_14 @
     ts_lex_keywords_cases_15 @
     ts_lex_keywords_cases_16 @
     ts_lex_keywords_cases_17 @
     ts_lex_keywords_cases_18 @
     ts_lex_keywords_cases_19 @
     ts_lex_keywords_cases_20"

lemmas ts_lex_keywords_parts =
  ts_lex_keywords_cases_1_def ts_lex_keywords_cases_2_def ts_lex_keywords_cases_3_def
  ts_lex_keywords_cases_4_def ts_lex_keywords_cases_5_def ts_lex_keywords_cases_6_def
  ts_lex_keywords_cases_7_def ts_lex_keywords_cases_8_def ts_lex_keywords_cases_9_def
  ts_lex_keywords_cases_10_def ts_lex_keywords_cases_11_def ts_lex_keywords_cases_12_def
  ts_lex_keywords_cases_13_def ts_lex_keywords_cases_14_def ts_lex_keywords_cases_15_def
  ts_lex_keywords_cases_16_def ts_lex_keywords_cases_17_def ts_lex_keywords_cases_18_def
  ts_lex_keywords_cases_19_def ts_lex_keywords_cases_20_def

definition ts_lex_keywords :: "'s TSLexer \<Rightarrow> TSStateId \<Rightarrow> 's \<Rightarrow> (bool \<times> 's) option" where
  "ts_lex_keywords L state s = start_lexer L ts_lex_keywords_cases state s"

end
