(* ===== verification/Lexer_Correct.thy ===== *)
theory Lexer_Correct
  imports Lexer_Loop Lex_Table Keyword_Table
begin

text \<open>
  The two generated lexers: both tables pass the check of \<open>lexer_table\<close>, so for every state and
  every input the lexers return, and return the longest token.
\<close>

lemmas check_simps =
  case_ok_def accept_first_def start_case_def token_case_def known_set_def

lemma labels_append:
  "map fst xs = [i..<j] \<Longrightarrow> map fst ys = [j..<k] \<Longrightarrow> i \<le> j \<Longrightarrow> j \<le> k \<Longrightarrow>
     map fst (xs @ ys) = [i..<k]"
  by (metis le_Suc_ex map_append upt_add_eq_append)

section \<open>\<open>ts_lex\<close>\<close>

definition lex_starts :: "TSStateId list" where
  "lex_starts = [0, 1, 2, 3, 4, 7, 8, 12, 13, 15, 18, 19, 20, 63]"

lemma lex_part_labels:
  "map fst ts_lex_cases_1 = [0..<4]"
  "map fst ts_lex_cases_2 = [4..<13]"
  "map fst ts_lex_cases_3 = [13..<48]"
  "map fst ts_lex_cases_4 = [48..<72]"
  "map fst ts_lex_cases_5 = [72..<99]"
  "map fst ts_lex_cases_6 = [99..<138]"
  "map fst ts_lex_cases_7 = [138..<166]"
  "map fst ts_lex_cases_8 = [166..<192]"
  "map fst ts_lex_cases_9 = [192..<217]"
  "map fst ts_lex_cases_10 = [217..<220]"
  by (simp_all add: ts_lex_parts upt_conv_Cons)

lemma ts_lex_labels: "map fst ts_lex_cases = [0..<220]"
  unfolding ts_lex_cases_def by (rule labels_append lex_part_labels | simp)+

lemma ts_lex_cases_ok: "list_all (\<lambda>(q, k). case_ok 220 lex_starts q k) ts_lex_cases"
  by (simp add: ts_lex_cases_def ts_lex_parts lex_starts_def check_simps)

interpretation lex: lexer_table 220 lex_starts ts_lex_cases
  by unfold_locales (simp add: table_ok_def ts_lex_labels ts_lex_cases_ok)

section \<open>\<open>ts_lex_keywords\<close>\<close>

lemma keyword_part_labels:
  "map fst ts_lex_keywords_cases_1 = [0..<10]"
  "map fst ts_lex_keywords_cases_2 = [10..<23]"
  "map fst ts_lex_keywords_cases_3 = [23..<45]"
  "map fst ts_lex_keywords_cases_4 = [45..<76]"
  "map fst ts_lex_keywords_cases_5 = [76..<107]"
  "map fst ts_lex_keywords_cases_6 = [107..<145]"
  "map fst ts_lex_keywords_cases_7 = [145..<180]"
  "map fst ts_lex_keywords_cases_8 = [180..<212]"
  "map fst ts_lex_keywords_cases_9 = [212..<251]"
  "map fst ts_lex_keywords_cases_10 = [251..<288]"
  "map fst ts_lex_keywords_cases_11 = [288..<320]"
  "map fst ts_lex_keywords_cases_12 = [320..<358]"
  "map fst ts_lex_keywords_cases_13 = [358..<396]"
  "map fst ts_lex_keywords_cases_14 = [396..<437]"
  "map fst ts_lex_keywords_cases_15 = [437..<475]"
  "map fst ts_lex_keywords_cases_16 = [475..<515]"
  "map fst ts_lex_keywords_cases_17 = [515..<556]"
  "map fst ts_lex_keywords_cases_18 = [556..<596]"
  "map fst ts_lex_keywords_cases_19 = [596..<636]"
  "map fst ts_lex_keywords_cases_20 = [636..<666]"
  by (simp_all add: ts_lex_keywords_parts upt_conv_Cons)

lemma ts_lex_keywords_labels: "map fst ts_lex_keywords_cases = [0..<666]"
  unfolding ts_lex_keywords_cases_def by (rule labels_append keyword_part_labels | simp)+

lemma ts_lex_keywords_cases_ok: "list_all (\<lambda>(q, k). case_ok 666 [0] q k) ts_lex_keywords_cases"
  by (simp add: ts_lex_keywords_cases_def ts_lex_keywords_parts check_simps)

interpretation kw: lexer_table 666 "[0]" ts_lex_keywords_cases
  by unfold_locales (simp add: table_ok_def ts_lex_keywords_labels ts_lex_keywords_cases_ok)

section \<open>The cases as equations\<close>

text \<open>
  Every case of the two tables, as equations for the simplifier to evaluate a run with,
  in small groups, for which it prepares its rules quickly.
\<close>

lemma list_all_cong_list: "xs = ys \<Longrightarrow> list_all P xs \<Longrightarrow> list_all P ys"
  by simp

lemma lex_entries: "list_all (\<lambda>(q, k). map_of ts_lex_cases q = Some k) ts_lex_cases"
  by (rule map_of_entries) (simp add: ts_lex_labels)

lemma lex_parts:
  "list_all (\<lambda>(q, k). map_of ts_lex_cases q = Some k) ts_lex_cases_1"
  "list_all (\<lambda>(q, k). map_of ts_lex_cases q = Some k) ts_lex_cases_2"
  "list_all (\<lambda>(q, k). map_of ts_lex_cases q = Some k) ts_lex_cases_3"
  "list_all (\<lambda>(q, k). map_of ts_lex_cases q = Some k) ts_lex_cases_4"
  "list_all (\<lambda>(q, k). map_of ts_lex_cases q = Some k) ts_lex_cases_5"
  "list_all (\<lambda>(q, k). map_of ts_lex_cases q = Some k) ts_lex_cases_6"
  "list_all (\<lambda>(q, k). map_of ts_lex_cases q = Some k) ts_lex_cases_7"
  "list_all (\<lambda>(q, k). map_of ts_lex_cases q = Some k) ts_lex_cases_8"
  "list_all (\<lambda>(q, k). map_of ts_lex_cases q = Some k) ts_lex_cases_9"
  "list_all (\<lambda>(q, k). map_of ts_lex_cases q = Some k) ts_lex_cases_10"
  using list_all_cong_list [OF ts_lex_cases_def lex_entries] by (simp_all only: list_all_append)

lemmas lex_case_1 = lex_parts(1) [unfolded ts_lex_cases_1_def entry_simps]
lemmas lex_case_2 = lex_parts(2) [unfolded ts_lex_cases_2_def entry_simps]
lemmas lex_case_3 = lex_parts(3) [unfolded ts_lex_cases_3_def entry_simps]
lemmas lex_case_4 = lex_parts(4) [unfolded ts_lex_cases_4_def entry_simps]
lemmas lex_case_5 = lex_parts(5) [unfolded ts_lex_cases_5_def entry_simps]
lemmas lex_case_6 = lex_parts(6) [unfolded ts_lex_cases_6_def entry_simps]
lemmas lex_case_7 = lex_parts(7) [unfolded ts_lex_cases_7_def entry_simps]
lemmas lex_case_8 = lex_parts(8) [unfolded ts_lex_cases_8_def entry_simps]
lemmas lex_case_9 = lex_parts(9) [unfolded ts_lex_cases_9_def entry_simps]
lemmas lex_case_10 = lex_parts(10) [unfolded ts_lex_cases_10_def entry_simps]

lemmas lex_lookup =
  lex_case_1 lex_case_2 lex_case_3 lex_case_4 lex_case_5 lex_case_6 lex_case_7 lex_case_8
  lex_case_9 lex_case_10

lemma keyword_entries: "list_all (\<lambda>(q, k). map_of ts_lex_keywords_cases q = Some k) ts_lex_keywords_cases"
  by (rule map_of_entries) (simp add: ts_lex_keywords_labels)

lemma keyword_parts:
  "list_all (\<lambda>(q, k). map_of ts_lex_keywords_cases q = Some k) ts_lex_keywords_cases_1"
  "list_all (\<lambda>(q, k). map_of ts_lex_keywords_cases q = Some k) ts_lex_keywords_cases_2"
  "list_all (\<lambda>(q, k). map_of ts_lex_keywords_cases q = Some k) ts_lex_keywords_cases_3"
  "list_all (\<lambda>(q, k). map_of ts_lex_keywords_cases q = Some k) ts_lex_keywords_cases_4"
  "list_all (\<lambda>(q, k). map_of ts_lex_keywords_cases q = Some k) ts_lex_keywords_cases_5"
  "list_all (\<lambda>(q, k). map_of ts_lex_keywords_cases q = Some k) ts_lex_keywords_cases_6"
  "list_all (\<lambda>(q, k). map_of ts_lex_keywords_cases q = Some k) ts_lex_keywords_cases_7"
  "list_all (\<lambda>(q, k). map_of ts_lex_keywords_cases q = Some k) ts_lex_keywords_cases_8"
  "list_all (\<lambda>(q, k). map_of ts_lex_keywords_cases q = Some k) ts_lex_keywords_cases_9"
  "list_all (\<lambda>(q, k). map_of ts_lex_keywords_cases q = Some k) ts_lex_keywords_cases_10"
  "list_all (\<lambda>(q, k). map_of ts_lex_keywords_cases q = Some k) ts_lex_keywords_cases_11"
  "list_all (\<lambda>(q, k). map_of ts_lex_keywords_cases q = Some k) ts_lex_keywords_cases_12"
  "list_all (\<lambda>(q, k). map_of ts_lex_keywords_cases q = Some k) ts_lex_keywords_cases_13"
  "list_all (\<lambda>(q, k). map_of ts_lex_keywords_cases q = Some k) ts_lex_keywords_cases_14"
  "list_all (\<lambda>(q, k). map_of ts_lex_keywords_cases q = Some k) ts_lex_keywords_cases_15"
  "list_all (\<lambda>(q, k). map_of ts_lex_keywords_cases q = Some k) ts_lex_keywords_cases_16"
  "list_all (\<lambda>(q, k). map_of ts_lex_keywords_cases q = Some k) ts_lex_keywords_cases_17"
  "list_all (\<lambda>(q, k). map_of ts_lex_keywords_cases q = Some k) ts_lex_keywords_cases_18"
  "list_all (\<lambda>(q, k). map_of ts_lex_keywords_cases q = Some k) ts_lex_keywords_cases_19"
  "list_all (\<lambda>(q, k). map_of ts_lex_keywords_cases q = Some k) ts_lex_keywords_cases_20"
  using list_all_cong_list [OF ts_lex_keywords_cases_def keyword_entries] by (simp_all only: list_all_append)

lemmas keyword_case_1 = keyword_parts(1) [unfolded ts_lex_keywords_cases_1_def entry_simps]
lemmas keyword_case_2 = keyword_parts(2) [unfolded ts_lex_keywords_cases_2_def entry_simps]
lemmas keyword_case_3 = keyword_parts(3) [unfolded ts_lex_keywords_cases_3_def entry_simps]
lemmas keyword_case_4 = keyword_parts(4) [unfolded ts_lex_keywords_cases_4_def entry_simps]
lemmas keyword_case_5 = keyword_parts(5) [unfolded ts_lex_keywords_cases_5_def entry_simps]
lemmas keyword_case_6 = keyword_parts(6) [unfolded ts_lex_keywords_cases_6_def entry_simps]
lemmas keyword_case_7 = keyword_parts(7) [unfolded ts_lex_keywords_cases_7_def entry_simps]
lemmas keyword_case_8 = keyword_parts(8) [unfolded ts_lex_keywords_cases_8_def entry_simps]
lemmas keyword_case_9 = keyword_parts(9) [unfolded ts_lex_keywords_cases_9_def entry_simps]
lemmas keyword_case_10 = keyword_parts(10) [unfolded ts_lex_keywords_cases_10_def entry_simps]
lemmas keyword_case_11 = keyword_parts(11) [unfolded ts_lex_keywords_cases_11_def entry_simps]
lemmas keyword_case_12 = keyword_parts(12) [unfolded ts_lex_keywords_cases_12_def entry_simps]
lemmas keyword_case_13 = keyword_parts(13) [unfolded ts_lex_keywords_cases_13_def entry_simps]
lemmas keyword_case_14 = keyword_parts(14) [unfolded ts_lex_keywords_cases_14_def entry_simps]
lemmas keyword_case_15 = keyword_parts(15) [unfolded ts_lex_keywords_cases_15_def entry_simps]
lemmas keyword_case_16 = keyword_parts(16) [unfolded ts_lex_keywords_cases_16_def entry_simps]
lemmas keyword_case_17 = keyword_parts(17) [unfolded ts_lex_keywords_cases_17_def entry_simps]
lemmas keyword_case_18 = keyword_parts(18) [unfolded ts_lex_keywords_cases_18_def entry_simps]
lemmas keyword_case_19 = keyword_parts(19) [unfolded ts_lex_keywords_cases_19_def entry_simps]
lemmas keyword_case_20 = keyword_parts(20) [unfolded ts_lex_keywords_cases_20_def entry_simps]

lemmas keyword_lookup =
  keyword_case_1 keyword_case_2 keyword_case_3 keyword_case_4 keyword_case_5 keyword_case_6
  keyword_case_7 keyword_case_8 keyword_case_9 keyword_case_10 keyword_case_11 keyword_case_12
  keyword_case_13 keyword_case_14 keyword_case_15 keyword_case_16 keyword_case_17 keyword_case_18
  keyword_case_19 keyword_case_20

section \<open>Calls of a lexer with a checked table\<close>

lemma start_lexer_cases:
  assumes "lexer_contract L view" and "lexer_table n starts table"
    and "token_ready view s xs" and "q < n"
  shows "case lexer_token table q xs of
      None \<Rightarrow> (\<exists>s'. start_lexer L table q s = Some (False, s'))
    | Some (y, e) \<Rightarrow> scanned view (start_lexer L table q s) y (dropWhile (skips table q) xs) e"
proof -
  have "ahead (view s) = xs" "start (view s) = ahead (view s)" "marked (view s) = None"
    using assms(3) by (simp_all add: token_ready_def)
  with lexer_run.lexer_returns[OF lexer_run.intro[OF assms(1,2)] assms(4), of s] show ?thesis
    by (auto simp: start_lexer_def scanned_def split: option.splits)
qed

lemma start_lexer_returns:
  assumes "lexer_contract L view" and "lexer_table n starts table" and "token_ready view s xs"
  shows "\<exists>r s'. start_lexer L table q s = Some (r, s')"
proof (cases "q < n")
  case True
  from start_lexer_cases[OF assms True] show ?thesis
    by (auto simp: scanned_def split: option.splits)
next
  case False
  then show ?thesis
    using lexer_table.lookup_None[OF assms(2)] by (auto simp: start_lexer_def lex_loop.simps)
qed

lemma start_lexer_scanned:
  assumes "lexer_contract L view" and "lexer_table n starts table"
    and "token_ready view s xs" and "q < n"
  shows "scanned view (start_lexer L table q s) y b e \<longleftrightarrow>
    b = dropWhile (skips table q) xs \<and>
    (if b = [] then end_token table q = Some (y, e) else longest_token table q b y e)"
proof -
  have "scanned view (start_lexer L table q s) y b e \<longleftrightarrow>
      lexer_token table q xs = Some (y, e) \<and> b = dropWhile (skips table q) xs"
    using start_lexer_cases[OF assms] by (auto simp: scanned_def split: option.splits)
  then show ?thesis
    unfolding lexer_token_def Let_def by (auto simp only: longest_token_iff if_True if_False split: if_split)
qed

section \<open>The loops over a buffer\<close>

interpretation lex_buffer: lexer_run buffer_lexer id 220 lex_starts ts_lex_cases
  by (intro lexer_run.intro buffer.lexer_contract_axioms lex.lexer_table_axioms)

interpretation keyword_buffer: lexer_run buffer_lexer id 666 "[0]" ts_lex_keywords_cases
  by (intro lexer_run.intro buffer.lexer_contract_axioms kw.lexer_table_axioms)

end
