(* ===== verification/Keyword_Language.thy ===== *)
theory Keyword_Language
  imports Lexer_Correct
begin

text \<open>
  The keywords. \<open>keyword_spellings\<close> lists every keyword of \<open>src/crates/tree-sitter/grammar.js\<close>
  that is a word (\<open>kw\<close> and \<open>ciChoice\<close> there spell a keyword in any case, a plain string exactly),
  with the token the generator gave it. \<open>keyword_words\<close> shows that the 666 states of
  \<open>ts_lex_keywords\<close> accept these words and no others.

  The proof walks the automaton and the list together: \<open>words_ok\<close> keeps, for the state reached, the
  spellings that are still possible, and compares them at every state.
\<close>

section \<open>The keywords of the grammar\<close>

datatype spelling = Any_Case string | Exact string

text \<open>The other case of a letter; a character that is no letter is its own.\<close>

definition other_case :: "char \<Rightarrow> char" where
  "other_case x =
     (let n = of_char x :: nat in
      if 65 \<le> n \<and> n \<le> 90 \<or> 97 \<le> n \<and> n \<le> 122
      then (case x of Char b0 b1 b2 b3 b4 b5 b6 b7 \<Rightarrow> Char b0 b1 b2 b3 b4 (\<not> b5) b6 b7)
      else x)"

fun spells :: "spelling \<Rightarrow> code_point list \<Rightarrow> bool" where
  "spells (Exact k) w = (w = map code k)"
| "spells (Any_Case k) w = list_all2 (\<lambda>x c. c = code x \<or> c = code (other_case x)) k w"

definition keyword_spellings :: "(spelling \<times> TSSymbol) list" where
  "keyword_spellings =
    [(Any_Case ''ABSTRACT'', aux_sym_fb_decl_token3),
     (Any_Case ''ACTION'', aux_sym_action_token1),
     (Any_Case ''AND'', aux_sym_and_operator_token1),
     (Any_Case ''ARRAY'', aux_sym_array_type_spec_token1),
     (Any_Case ''AT'', aux_sym_relative_located_at_token1),
     (Exact ''D'', anon_sym_D),
     (Any_Case ''DATE'', sym_date_type_name),
     (Any_Case ''DATE_AND_TIME'', sym_dt_type_name),
     (Any_Case ''DT'', sym_dt_type_name),
     (Any_Case ''DINT'', aux_sym_sign_int_type_name_token3),
     (Any_Case ''DO'', aux_sym_for_stmt_token2),
     (Any_Case ''DS'', aux_sym_action_qualifier_token2),
     (Any_Case ''DWORD'', aux_sym_multibits_type_name_token3),
     (Any_Case ''ELSE'', aux_sym_if_stmt_token3),
     (Any_Case ''ELSIF'', aux_sym_else_if_stmt_token1),
     (Any_Case ''END_ACTION'', aux_sym_action_token2),
     (Any_Case ''END_CASE'', aux_sym_case_stmt_token2),
     (Any_Case ''END_CLASS'', aux_sym_class_decl_token2),
     (Any_Case ''END_CONFIGURATION'', aux_sym_config_decl_token2),
     (Any_Case ''END_FOR'', aux_sym_for_stmt_token3),
     (Any_Case ''END_FUNCTION'', aux_sym_func_decl_token2),
     (Any_Case ''END_FUNCTION_BLOCK'', aux_sym_fb_decl_token4),
     (Any_Case ''END_IF'', aux_sym_if_stmt_token4),
     (Any_Case ''END_INTERFACE'', aux_sym_interface_decl_token2),
     (Any_Case ''END_METHOD'', aux_sym_method_decl_token3),
     (Any_Case ''END_NAMESPACE'', aux_sym_namespace_decl_token2),
     (Any_Case ''END_PROGRAM'', aux_sym_prog_decl_token2),
     (Any_Case ''END_REPEAT'', aux_sym_repeat_stmt_token3),
     (Any_Case ''END_RESOURCE'', aux_sym_resource_decl_token3),
     (Any_Case ''END_STEP'', aux_sym_initial_step_token2),
     (Any_Case ''END_STRUCT'', aux_sym_struct_type_spec_token3),
     (Any_Case ''END_TRANSITION'', aux_sym_transition_token5),
     (Any_Case ''END_TYPE'', aux_sym_data_type_decl_token2),
     (Any_Case ''END_VAR'', aux_sym_input_decls_token2),
     (Any_Case ''END_WHILE'', aux_sym_while_stmt_token2),
     (Any_Case ''EXIT'', aux_sym__stmt_token2),
     (Any_Case ''EXTENDS'', aux_sym_ERR_extends_multiple_times_token1),
     (Exact ''F_'', aux_sym_ERR_invalid_edge_qualifier_token1),
     (Exact ''F_E'', aux_sym_ERR_invalid_edge_qualifier_token1),
     (Exact ''F_ED'', aux_sym_ERR_invalid_edge_qualifier_token1),
     (Exact ''F_EDG'', aux_sym_ERR_invalid_edge_qualifier_token1),
     (Exact ''R_'', aux_sym_ERR_invalid_edge_qualifier_token1),
     (Exact ''R_E'', aux_sym_ERR_invalid_edge_qualifier_token1),
     (Exact ''R_ED'', aux_sym_ERR_invalid_edge_qualifier_token1),
     (Exact ''R_EDG'', aux_sym_ERR_invalid_edge_qualifier_token1),
     (Any_Case ''F_EDGE'', aux_sym_edge_decl_token2),
     (Any_Case ''FALSE'', aux_sym_bool_literal_with_string_token3),
     (Any_Case ''FINAL'', aux_sym_fb_decl_token2),
     (Any_Case ''FOR'', aux_sym_for_stmt_token1),
     (Any_Case ''FROM'', aux_sym_transition_token3),
     (Any_Case ''FUNCTION'', aux_sym_func_decl_token1),
     (Any_Case ''FUNCTION_BLOCK'', aux_sym_fb_decl_token1),
     (Any_Case ''IF'', aux_sym_if_stmt_token1),
     (Any_Case ''IMPLEMENTS'', aux_sym_ERR_implements_before_extends_token1),
     (Any_Case ''INITIAL_STEP'', aux_sym_initial_step_token1),
     (Any_Case ''INT'', aux_sym_sign_int_type_name_token2),
     (Any_Case ''INTERFACE'', aux_sym_interface_decl_token1),
     (Any_Case ''INTERNAL'', aux_sym_access_spec_token4),
     (Any_Case ''INTERVAL'', aux_sym_ERR_interval_after_priority_token1),
     (Exact ''L'', anon_sym_L),
     (Any_Case ''LDATE'', sym_l_date_type_name),
     (Any_Case ''LDATE_AND_TIME'', sym_l_dt_type_name),
     (Any_Case ''LDT'', sym_l_dt_type_name),
     (Any_Case ''LINT'', aux_sym_sign_int_type_name_token4),
     (Any_Case ''LREAL'', aux_sym_real_type_name_token2),
     (Any_Case ''LTIME'', sym_l_time_type_name),
     (Any_Case ''LTIME_OF_DAY'', sym_ltod_type_name),
     (Any_Case ''LTOD'', sym_ltod_type_name),
     (Any_Case ''LWORD'', aux_sym_multibits_type_name_token4),
     (Exact ''N'', anon_sym_N),
     (Any_Case ''NAMESPACE'', aux_sym_namespace_decl_token1),
     (Any_Case ''NON_RETAIN'', aux_sym_ERR_doubled_qualifier_token2),
     (Any_Case ''NOT'', aux_sym_unary_token1),
     (Any_Case ''NULL'', aux_sym_ref_value_token1),
     (Exact ''P'', anon_sym_P),
     (Any_Case ''PRIORITY'', aux_sym_transition_token2),
     (Any_Case ''PRIVATE'', aux_sym_access_spec_token3),
     (Any_Case ''PROGRAM'', aux_sym_prog_decl_token1),
     (Any_Case ''PROTECTED'', aux_sym_access_spec_token2),
     (Any_Case ''PUBLIC'', aux_sym_access_spec_token1),
     (Exact ''R'', anon_sym_R),
     (Any_Case ''R_EDGE'', aux_sym_edge_decl_token1),
     (Any_Case ''READ_ONLY'', aux_sym_access_direction_token2),
     (Any_Case ''READ_WRITE'', aux_sym_access_direction_token1),
     (Any_Case ''REAL'', aux_sym_real_type_name_token1),
     (Any_Case ''REF'', aux_sym_ref_addr_token1),
     (Any_Case ''REF_TO'', aux_sym_ref_type_spec_token1),
     (Any_Case ''REPEAT'', aux_sym_repeat_stmt_token1),
     (Any_Case ''RESOURCE'', aux_sym_resource_decl_token1),
     (Any_Case ''RETAIN'', aux_sym_ERR_doubled_qualifier_token1),
     (Any_Case ''RETURN'', aux_sym__stmt_token1),
     (Exact ''S'', anon_sym_S),
     (Any_Case ''SD'', aux_sym_action_qualifier_token1),
     (Any_Case ''SINGLE'', aux_sym_ERR_single_after_interval_token1),
     (Any_Case ''SINT'', aux_sym_sign_int_type_name_token1),
     (Any_Case ''SL'', aux_sym_action_qualifier_token3),
     (Any_Case ''STEP'', aux_sym_step_token1),
     (Any_Case ''STRING'', aux_sym_string_name_token1),
     (Any_Case ''STRUCT'', aux_sym_struct_type_spec_token1),
     (Any_Case ''SUPER'', aux_sym_ERR_unexpected_super_in_path_token1),
     (Any_Case ''TASK'', aux_sym_task_config_token1),
     (Any_Case ''THEN'', aux_sym_if_stmt_token2),
     (Any_Case ''THIS'', aux_sym_ERR_unexpected_this_in_path_token1),
     (Any_Case ''TIME'', sym_time_type_name),
     (Any_Case ''TIME_OF_DAY'', sym_tod_type_name),
     (Any_Case ''TOD'', sym_tod_type_name),
     (Any_Case ''TO'', aux_sym_transition_token4),
     (Any_Case ''TRANSITION'', aux_sym_transition_token1),
     (Any_Case ''TRUE'', aux_sym_bool_literal_with_string_token2),
     (Any_Case ''TYPE'', aux_sym_data_type_decl_token1),
     (Any_Case ''WHILE'', aux_sym_while_stmt_token1),
     (Any_Case ''WITH'', aux_sym_prog_config_token1),
     (Any_Case ''WORD'', aux_sym_multibits_type_name_token2),
     (Any_Case ''__CATCH'', aux_sym_catch_clause_token1),
     (Any_Case ''__END_TRY'', aux_sym_try_stmt_token2),
     (Any_Case ''__ENDTRY'', aux_sym_ERR_end_try_spelling_token1),
     (Any_Case ''__FINALLY'', aux_sym_finally_clause_token1),
     (Any_Case ''__RAISE'', aux_sym_raise_stmt_token1),
     (Any_Case ''__TRY'', aux_sym_try_stmt_token1),
     (Exact ''allow'', anon_sym_allow),
     (Exact ''extern'', anon_sym_extern),
     (Exact ''info'', anon_sym_info),
     (Exact ''params'', anon_sym_params),
     (Exact ''result'', anon_sym_result),
     (Exact ''todo_fbd'', sym_fbd_network),
     (Exact ''todo_lad'', sym_ld_rung),
     (Exact ''warn'', anon_sym_warn),
     (Exact ''wasm'', anon_sym_wasm),
     (Any_Case ''BOOL'', aux_sym_bit_str_type_name_token1),
     (Any_Case ''BY'', aux_sym_for_list_token1),
     (Any_Case ''BYTE'', aux_sym_multibits_type_name_token1),
     (Any_Case ''CASE'', aux_sym_case_stmt_token1),
     (Any_Case ''CHAR'', aux_sym_char_name_token1),
     (Any_Case ''CLASS'', aux_sym_class_decl_token1),
     (Any_Case ''CONFIGURATION'', aux_sym_config_decl_token1),
     (Any_Case ''CONSTANT'', aux_sym_ERR_doubled_retain_token1),
     (Any_Case ''CONTINUE'', aux_sym__stmt_token3),
     (Any_Case ''MAX'', aux_sym_fold_operator_token2),
     (Any_Case ''METHOD'', aux_sym_method_decl_token1),
     (Any_Case ''MIN'', aux_sym_fold_operator_token1),
     (Any_Case ''MOD'', aux_sym_mult_token1),
     (Any_Case ''OF'', aux_sym_array_type_spec_token2),
     (Any_Case ''ON'', aux_sym_resource_decl_token2),
     (Any_Case ''OR'', aux_sym_or_operator_token1),
     (Any_Case ''OVERLAP'', aux_sym_struct_type_spec_token2),
     (Any_Case ''OVERRIDE'', aux_sym_method_decl_token2),
     (Any_Case ''UDINT'', aux_sym_unsign_int_type_name_token3),
     (Any_Case ''UINT'', aux_sym_unsign_int_type_name_token2),
     (Any_Case ''ULINT'', aux_sym_unsign_int_type_name_token4),
     (Any_Case ''UNTIL'', aux_sym_repeat_stmt_token2),
     (Any_Case ''USING'', aux_sym_using_directive_token1),
     (Any_Case ''USINT'', aux_sym_unsign_int_type_name_token1),
     (Any_Case ''VAR'', aux_sym_var_decls_token1),
     (Any_Case ''VAR_ACCESS'', aux_sym_prog_access_decls_token1),
     (Any_Case ''VAR_CONFIG'', aux_sym_config_init_token1),
     (Any_Case ''VAR_EXTERNAL'', aux_sym_external_var_decls_token1),
     (Any_Case ''VAR_GLOBAL'', aux_sym_global_var_decls_token1),
     (Any_Case ''VAR_IN_OUT'', aux_sym_in_out_decls_token1),
     (Any_Case ''VAR_INPUT'', aux_sym_input_decls_token1),
     (Any_Case ''VAR_OUTPUT'', aux_sym_output_decls_token1),
     (Any_Case ''VAR_TEMP'', aux_sym_temp_var_decls_token1),
     (Any_Case ''XOR'', aux_sym_xor_operator_token1)]"

section \<open>Walking the automaton and the list together\<close>

text \<open>A spelling as the characters it allows at each place.\<close>

primrec letters :: "spelling \<Rightarrow> char list list" where
  "letters (Exact k) = map (\<lambda>x. [x]) k"
| "letters (Any_Case k) = map (\<lambda>x. [x, other_case x]) k"

type_synonym pattern = "char list list \<times> TSSymbol"

definition matches :: "char list list \<Rightarrow> code_point list \<Rightarrow> bool" where
  "matches p w = list_all2 (\<lambda>cs c. c \<in> code ` set cs) p w"

lemma matches_simps [simp]:
  "matches [] w \<longleftrightarrow> w = []"
  "matches (cs # p) [] = False"
  "matches (cs # p) (c # w) \<longleftrightarrow> c \<in> code ` set cs \<and> matches p w"
  by (simp_all add: matches_def)

lemma matches_Nil: "matches p [] \<longleftrightarrow> p = []"
  by (cases p) simp_all

lemma matches_letters: "matches (letters sp) w = spells sp w"
proof (cases sp)
  case (Any_Case k)
  then show ?thesis
    by (auto simp: matches_def list_all2_map1 image_def intro: list_all2_mono)
next
  case (Exact k)
  have "matches (map (\<lambda>x. [x]) k) w \<longleftrightarrow> w = map code k"
    by (auto simp: matches_def list_all2_map1 list_all2_conv_all_nth intro: nth_equalityI)
  with Exact show ?thesis by simp
qed

fun keep :: "bool \<Rightarrow> 'a \<Rightarrow> 'a list \<Rightarrow> 'a list" where
  "keep True a as = a # as"
| "keep False a as = as"

fun residual :: "char \<Rightarrow> pattern list \<Rightarrow> pattern list" where
  "residual x [] = []"
| "residual x (([], y) # ps) = residual x ps"
| "residual x ((cs # p, y) # ps) = keep (List.member cs x) (p, y) (residual x ps)"

lemma set_keep [simp]: "set (keep b a as) = (if b then insert a (set as) else set as)"
  by (cases b) simp_all

lemma residual_iff: "(p, y) \<in> set (residual x ps) \<longleftrightarrow> (\<exists>cs. (cs # p, y) \<in> set ps \<and> x \<in> set cs)"
  by (induction x ps rule: residual.induct) auto

text \<open>
  The characters a case can advance on, when all its conditions for that are comparisons with one
  character.
\<close>

fun cond_chars :: "lex_cond \<Rightarrow> char list option" where
  "cond_chars (EQ x) = Some [x]"
| "cond_chars (OR p q) =
     (case (cond_chars p, cond_chars q) of (Some xs, Some ys) \<Rightarrow> Some (xs @ ys) | _ \<Rightarrow> None)"
| "cond_chars p = None"

fun case_chars :: "lex_case \<Rightarrow> char list option" where
  "case_chars [] = Some []"
| "case_chars (ACCEPT_TOKEN y # k) = case_chars k"
| "case_chars (ADVANCE_MAP m # k) = map_option ((@) (map fst m)) (case_chars k)"
| "case_chars (IF p (SKIP q) # k) = case_chars k"
| "case_chars (IF p (ADVANCE q) # k) =
     (case (cond_chars p, case_chars k) of (Some xs, Some ys) \<Rightarrow> Some (xs @ ys) | _ \<Rightarrow> None)"

lemma cond_chars_holds: "cond_chars p = Some xs \<Longrightarrow> holds e c p \<Longrightarrow> c \<in> code ` set xs"
  by (induction p arbitrary: xs) (auto split: option.splits)

lemma advance_map_chars: "advance_map m c = Some q \<Longrightarrow> c \<in> code ` fst ` set m"
  by (induction m c rule: advance_map.induct) (auto split: if_splits)

lemma case_chars_goto:
  "case_chars k = Some xs \<Longrightarrow> case_goto e c k = Some (ADVANCE q) \<Longrightarrow> c \<in> code ` set xs"
  by (induction k arbitrary: xs rule: case_chars.induct)
    (auto simp: image_Un dest: cond_chars_holds advance_map_chars split: option.splits if_splits)

text \<open>The patterns that end here agree with what the case accepts.\<close>

definition end_ok :: "TSSymbol option \<Rightarrow> pattern list \<Rightarrow> bool" where
  "end_ok a ps =
     (case a of
        None \<Rightarrow> list_all (\<lambda>(p, y). p \<noteq> []) ps
      | Some y \<Rightarrow> list_ex (\<lambda>(p, y'). p = []) ps \<and> list_all (\<lambda>(p, y'). p = [] \<longrightarrow> y' = y) ps)"

lemma end_ok_iff: "end_ok a ps \<Longrightarrow> a = Some y \<longleftrightarrow> ([], y) \<in> set ps"
  by (cases a) (auto simp: end_ok_def list_all_iff list_ex_iff)

text \<open>
  The states a case advances to, each once, with what is left of the patterns; \<open>None\<close> when two
  characters lead to one state with different remainders, or a pattern goes on where the case stops.
\<close>

fun add_target ::
  "TSStateId \<Rightarrow> pattern list \<Rightarrow> (TSStateId \<times> pattern list) list \<Rightarrow> (TSStateId \<times> pattern list) list option"
where
  "add_target q ps [] = Some [(q, ps)]"
| "add_target q ps ((q', ps') # ts) =
     (if q = q' then (if ps = ps' then Some ((q', ps') # ts) else None)
      else map_option (Cons (q', ps')) (add_target q ps ts))"

fun targets :: "lex_case \<Rightarrow> pattern list \<Rightarrow> char list \<Rightarrow> (TSStateId \<times> pattern list) list option" where
  "targets k ps [] = Some []"
| "targets k ps (x # xs) =
     (case targets k ps xs of
        None \<Rightarrow> None
      | Some ts \<Rightarrow>
          (case case_goto False (code x) k of
             Some (ADVANCE q) \<Rightarrow> add_target q (residual x ps) ts
           | _ \<Rightarrow> if residual x ps = [] then Some ts else None))"

definition heads_in :: "char list \<Rightarrow> pattern list \<Rightarrow> bool" where
  "heads_in xs ps =
     list_all (\<lambda>(p, y). case p of [] \<Rightarrow> True | cs # _ \<Rightarrow> list_all (List.member xs) cs) ps"

fun words_ok :: "nat \<Rightarrow> lex_table \<Rightarrow> TSStateId \<Rightarrow> pattern list \<Rightarrow> bool" where
  "words_ok 0 table q ps = False"
| "words_ok (Suc n) table q ps =
     (case map_of table q of
        None \<Rightarrow> False
      | Some k \<Rightarrow>
          end_ok (case_accepts k) ps \<and>
          (case case_chars k of
             None \<Rightarrow> False
           | Some xs \<Rightarrow>
               heads_in xs ps \<and>
               (case targets k ps xs of
                  None \<Rightarrow> False
                | Some ts \<Rightarrow> list_all (\<lambda>(q', ps'). words_ok n table q' ps') ts)))"

lemma add_target_Some:
  "add_target q ps ts = Some ts' \<Longrightarrow> set ts' = insert (q, ps) (set ts)"
  by (induction q ps ts arbitrary: ts' rule: add_target.induct) (auto split: if_splits)

lemma targets_Some:
  assumes "targets k ps xs = Some ts" and "x \<in> set xs"
  shows "case case_goto False (code x) k of
      Some (ADVANCE q) \<Rightarrow> (q, residual x ps) \<in> set ts
    | _ \<Rightarrow> residual x ps = []"
  using assms
proof (induction xs arbitrary: ts)
  case (Cons x' xs)
  then obtain ts' where ts': "targets k ps xs = Some ts'"
    by (auto split: option.splits)
  have "set ts' \<subseteq> set ts"
    using Cons.prems(1) ts' by (auto dest: add_target_Some split: option.splits lex_goto.splits if_splits)
  moreover have "case case_goto False (code x') k of
      Some (ADVANCE q) \<Rightarrow> (q, residual x' ps) \<in> set ts
    | _ \<Rightarrow> residual x' ps = []"
    using Cons.prems(1) ts' by (auto dest: add_target_Some split: option.splits lex_goto.splits if_splits)
  ultimately show ?case
    using Cons.IH[OF ts'] Cons.prems(2) by (auto split: option.splits lex_goto.splits)
qed simp

text \<open>One state: what its successors accept determines what it accepts.\<close>

lemma accepts_step:
  assumes k: "map_of table q = Some k" "end_ok (case_accepts k) ps" "case_chars k = Some xs"
      "heads_in xs ps"
    and next_states: "\<And>x. x \<in> set xs \<Longrightarrow>
      case case_goto False (code x) k of
        Some (ADVANCE q') \<Rightarrow>
          \<forall>w y. accepts table q' w y \<longleftrightarrow> (\<exists>p. (p, y) \<in> set (residual x ps) \<and> matches p w)
      | _ \<Rightarrow> residual x ps = []"
  shows "accepts table q w y \<longleftrightarrow> (\<exists>p. (p, y) \<in> set ps \<and> matches p w)"
proof (cases w)
  case Nil
  then show ?thesis
    using end_ok_iff[OF k(2)] k(1) by (simp add: accepts_Nil accepting_def matches_Nil)
next
  case (Cons c w')
  have delta: "delta table q c =
      (case case_goto False c k of Some (ADVANCE q') \<Rightarrow> Some q' | _ \<Rightarrow> None)"
    using k(1) by (simp add: delta_def state_goto_def)
  show ?thesis
  proof (cases "c \<in> code ` set xs")
    case False
    then have "delta table q c = None"
      using case_chars_goto[OF k(3), of False c] delta by (auto split: option.splits lex_goto.splits)
    moreover have "\<not> matches p w" if "(p, y) \<in> set ps" for p
      using that k(4) False Cons
      by (cases p) (auto simp: heads_in_def list_all_iff split: list.splits)
    ultimately show ?thesis
      using Cons by (auto simp: accepts_Cons)
  next
    case True
    then obtain x where x: "x \<in> set xs" "c = code x"
      by auto
    have residual: "(\<exists>p. (p, y) \<in> set ps \<and> matches p w) \<longleftrightarrow>
        (\<exists>p. (p, y) \<in> set (residual x ps) \<and> matches p w')"
    proof
      assume "\<exists>p. (p, y) \<in> set ps \<and> matches p w"
      then obtain cs p where "(cs # p, y) \<in> set ps" "matches (cs # p) w"
        using Cons by (metis list.exhaust matches_simps(1) list.distinct(1))
      then show "\<exists>p. (p, y) \<in> set (residual x ps) \<and> matches p w'"
        using Cons x by (intro exI[of _ p]) (auto simp: residual_iff)
    qed (use Cons x in \<open>force simp: residual_iff\<close>)
    show ?thesis
      unfolding residual unfolding Cons
      using next_states[OF x(1)] delta x(2)
      by (auto simp: accepts_Cons split: option.splits lex_goto.splits)
  qed
qed

lemma words_ok_accepts:
  "words_ok n table q ps \<Longrightarrow> accepts table q w y \<longleftrightarrow> (\<exists>p. (p, y) \<in> set ps \<and> matches p w)"
proof (induction n arbitrary: q ps w y)
  case (Suc n)
  then obtain k xs ts where k: "map_of table q = Some k" "end_ok (case_accepts k) ps"
      "case_chars k = Some xs" "heads_in xs ps" "targets k ps xs = Some ts"
      "list_all (\<lambda>(q', ps'). words_ok n table q' ps') ts"
    by (auto split: option.splits)
  show ?case
  proof (rule accepts_step[OF k(1-4)])
    fix x
    assume "x \<in> set xs"
    from targets_Some[OF k(5) this] k(6) Suc.IH
    show "case case_goto False (code x) k of
        Some (ADVANCE q') \<Rightarrow>
          \<forall>w y. accepts table q' w y \<longleftrightarrow> (\<exists>p. (p, y) \<in> set (residual x ps) \<and> matches p w)
      | _ \<Rightarrow> residual x ps = []"
      by (simp add: list_all_iff split: option.splits lex_goto.splits) fast
  qed
qed simp

section \<open>The keyword automaton\<close>

definition keyword_patterns :: "pattern list" where
  "keyword_patterns = map (\<lambda>(sp, y). (letters sp, y)) keyword_spellings"

lemma other_case_upper:
  "other_case (CHR ''A'') = CHR ''a''" "other_case (CHR ''B'') = CHR ''b''"
  "other_case (CHR ''C'') = CHR ''c''" "other_case (CHR ''D'') = CHR ''d''"
  "other_case (CHR ''E'') = CHR ''e''" "other_case (CHR ''F'') = CHR ''f''"
  "other_case (CHR ''G'') = CHR ''g''" "other_case (CHR ''H'') = CHR ''h''"
  "other_case (CHR ''I'') = CHR ''i''" "other_case (CHR ''J'') = CHR ''j''"
  "other_case (CHR ''K'') = CHR ''k''" "other_case (CHR ''L'') = CHR ''l''"
  "other_case (CHR ''M'') = CHR ''m''" "other_case (CHR ''N'') = CHR ''n''"
  "other_case (CHR ''O'') = CHR ''o''" "other_case (CHR ''P'') = CHR ''p''"
  "other_case (CHR ''Q'') = CHR ''q''" "other_case (CHR ''R'') = CHR ''r''"
  "other_case (CHR ''S'') = CHR ''s''" "other_case (CHR ''T'') = CHR ''t''"
  "other_case (CHR ''U'') = CHR ''u''" "other_case (CHR ''V'') = CHR ''v''"
  "other_case (CHR ''W'') = CHR ''w''" "other_case (CHR ''X'') = CHR ''x''"
  "other_case (CHR ''Y'') = CHR ''y''" "other_case (CHR ''Z'') = CHR ''z''"
  "other_case (CHR ''_'') = CHR ''_''"
  by (simp_all add: other_case_def)

lemmas keyword_patterns_value =
  keyword_patterns_def [unfolded keyword_spellings_def, simplified, unfolded other_case_upper]

abbreviation keyword_length :: nat where
  "keyword_length \<equiv> Suc (Suc (Suc (Suc (Suc (Suc (Suc (Suc (Suc (Suc (Suc (Suc (Suc (Suc (Suc
     (Suc (Suc (Suc (Suc 0))))))))))))))))))"

lemmas keyword_walk = keyword_lookup keyword_patterns_value end_ok_def heads_in_def

text \<open>The walk from each state the start state goes to.\<close>

lemma keywords_A:
  "words_ok keyword_length ts_lex_keywords_cases 1 (residual (CHR ''A'') keyword_patterns)"
  "words_ok keyword_length ts_lex_keywords_cases 14 (residual (CHR ''a'') keyword_patterns)"
  by (simp_all del: One_nat_def add: keyword_walk)

lemma keywords_B:
  "words_ok keyword_length ts_lex_keywords_cases 26 (residual (CHR ''B'') keyword_patterns)"
  "words_ok keyword_length ts_lex_keywords_cases 26 (residual (CHR ''b'') keyword_patterns)"
  by (simp_all del: One_nat_def add: keyword_walk)

lemma keywords_C:
  "words_ok keyword_length ts_lex_keywords_cases 27 (residual (CHR ''C'') keyword_patterns)"
  "words_ok keyword_length ts_lex_keywords_cases 27 (residual (CHR ''c'') keyword_patterns)"
  by (simp_all del: One_nat_def add: keyword_walk)

lemma keywords_D:
  "words_ok keyword_length ts_lex_keywords_cases 2 (residual (CHR ''D'') keyword_patterns)"
  "words_ok keyword_length ts_lex_keywords_cases 15 (residual (CHR ''d'') keyword_patterns)"
  by (simp_all del: One_nat_def add: keyword_walk)

lemma keywords_E:
  "words_ok keyword_length ts_lex_keywords_cases 3 (residual (CHR ''E'') keyword_patterns)"
  "words_ok keyword_length ts_lex_keywords_cases 16 (residual (CHR ''e'') keyword_patterns)"
  by (simp_all del: One_nat_def add: keyword_walk)

lemma keywords_F:
  "words_ok keyword_length ts_lex_keywords_cases 4 (residual (CHR ''F'') keyword_patterns)"
  "words_ok keyword_length ts_lex_keywords_cases 17 (residual (CHR ''f'') keyword_patterns)"
  by (simp_all del: One_nat_def add: keyword_walk)

lemma keywords_I:
  "words_ok keyword_length ts_lex_keywords_cases 5 (residual (CHR ''I'') keyword_patterns)"
  "words_ok keyword_length ts_lex_keywords_cases 18 (residual (CHR ''i'') keyword_patterns)"
  by (simp_all del: One_nat_def add: keyword_walk)

lemma keywords_L:
  "words_ok keyword_length ts_lex_keywords_cases 6 (residual (CHR ''L'') keyword_patterns)"
  "words_ok keyword_length ts_lex_keywords_cases 19 (residual (CHR ''l'') keyword_patterns)"
  by (simp_all del: One_nat_def add: keyword_walk)

lemma keywords_M:
  "words_ok keyword_length ts_lex_keywords_cases 28 (residual (CHR ''M'') keyword_patterns)"
  "words_ok keyword_length ts_lex_keywords_cases 28 (residual (CHR ''m'') keyword_patterns)"
  by (simp_all del: One_nat_def add: keyword_walk)

lemma keywords_N:
  "words_ok keyword_length ts_lex_keywords_cases 7 (residual (CHR ''N'') keyword_patterns)"
  "words_ok keyword_length ts_lex_keywords_cases 20 (residual (CHR ''n'') keyword_patterns)"
  by (simp_all del: One_nat_def add: keyword_walk)

lemma keywords_O:
  "words_ok keyword_length ts_lex_keywords_cases 29 (residual (CHR ''O'') keyword_patterns)"
  "words_ok keyword_length ts_lex_keywords_cases 29 (residual (CHR ''o'') keyword_patterns)"
  by (simp_all del: One_nat_def add: keyword_walk)

lemma keywords_P:
  "words_ok keyword_length ts_lex_keywords_cases 8 (residual (CHR ''P'') keyword_patterns)"
  "words_ok keyword_length ts_lex_keywords_cases 21 (residual (CHR ''p'') keyword_patterns)"
  by (simp_all del: One_nat_def add: keyword_walk)

lemma keywords_R:
  "words_ok keyword_length ts_lex_keywords_cases 9 (residual (CHR ''R'') keyword_patterns)"
  "words_ok keyword_length ts_lex_keywords_cases 22 (residual (CHR ''r'') keyword_patterns)"
  by (simp_all del: One_nat_def add: keyword_walk)

lemma keywords_S:
  "words_ok keyword_length ts_lex_keywords_cases 10 (residual (CHR ''S'') keyword_patterns)"
  "words_ok keyword_length ts_lex_keywords_cases 23 (residual (CHR ''s'') keyword_patterns)"
  by (simp_all del: One_nat_def add: keyword_walk)

lemma keywords_T:
  "words_ok keyword_length ts_lex_keywords_cases 11 (residual (CHR ''T'') keyword_patterns)"
  "words_ok keyword_length ts_lex_keywords_cases 24 (residual (CHR ''t'') keyword_patterns)"
  by (simp_all del: One_nat_def add: keyword_walk)

lemma keywords_U:
  "words_ok keyword_length ts_lex_keywords_cases 30 (residual (CHR ''U'') keyword_patterns)"
  "words_ok keyword_length ts_lex_keywords_cases 30 (residual (CHR ''u'') keyword_patterns)"
  by (simp_all del: One_nat_def add: keyword_walk)

lemma keywords_V:
  "words_ok keyword_length ts_lex_keywords_cases 31 (residual (CHR ''V'') keyword_patterns)"
  "words_ok keyword_length ts_lex_keywords_cases 31 (residual (CHR ''v'') keyword_patterns)"
  by (simp_all del: One_nat_def add: keyword_walk)

lemma keywords_W:
  "words_ok keyword_length ts_lex_keywords_cases 12 (residual (CHR ''W'') keyword_patterns)"
  "words_ok keyword_length ts_lex_keywords_cases 25 (residual (CHR ''w'') keyword_patterns)"
  by (simp_all del: One_nat_def add: keyword_walk)

lemma keywords_X:
  "words_ok keyword_length ts_lex_keywords_cases 32 (residual (CHR ''X'') keyword_patterns)"
  "words_ok keyword_length ts_lex_keywords_cases 32 (residual (CHR ''x'') keyword_patterns)"
  by (simp_all del: One_nat_def add: keyword_walk)

lemma keywords_underscore:
  "words_ok keyword_length ts_lex_keywords_cases 13 (residual (CHR ''_'') keyword_patterns)"
  by (simp_all del: One_nat_def add: keyword_walk)

lemmas keyword_walks =
  keywords_A keywords_B keywords_C keywords_D keywords_E keywords_F keywords_I keywords_L
  keywords_M keywords_N keywords_O keywords_P keywords_R keywords_S keywords_T keywords_U
  keywords_V keywords_W keywords_X keywords_underscore

text \<open>The start state: where it goes for each first character.\<close>

definition keyword_starts :: "(char \<times> TSStateId) list" where
  "keyword_starts =
    [(CHR ''A'', 1), (CHR ''D'', 2), (CHR ''E'', 3), (CHR ''F'', 4), (CHR ''I'', 5),
     (CHR ''L'', 6), (CHR ''N'', 7), (CHR ''P'', 8), (CHR ''R'', 9), (CHR ''S'', 10),
     (CHR ''T'', 11), (CHR ''W'', 12), (CHR ''_'', 13), (CHR ''a'', 14), (CHR ''d'', 15),
     (CHR ''e'', 16), (CHR ''f'', 17), (CHR ''i'', 18), (CHR ''l'', 19), (CHR ''n'', 20),
     (CHR ''p'', 21), (CHR ''r'', 22), (CHR ''s'', 23), (CHR ''t'', 24), (CHR ''w'', 25),
     (CHR ''B'', 26), (CHR ''b'', 26), (CHR ''C'', 27), (CHR ''c'', 27), (CHR ''M'', 28),
     (CHR ''m'', 28), (CHR ''O'', 29), (CHR ''o'', 29), (CHR ''U'', 30), (CHR ''u'', 30),
     (CHR ''V'', 31), (CHR ''v'', 31), (CHR ''X'', 32), (CHR ''x'', 32)]"

lemma keyword_start_case:
  "map_of ts_lex_keywords_cases 0 = Some
     [ADVANCE_MAP keyword_starts,
      IF (OR (BETWEEN (CHR 0x09) (CHR 0x0D)) (EQ (CHR 0x20))) (SKIP 0)]"
  by (simp only: keyword_lookup keyword_starts_def)

lemma keyword_start_walks:
  "list_all (\<lambda>(x, q). words_ok keyword_length ts_lex_keywords_cases q (residual x keyword_patterns))
     keyword_starts"
  by (simp only: keyword_starts_def list_all_equations prod.case keyword_walks simp_thms)

lemma keyword_start_heads: "heads_in (map fst keyword_starts) keyword_patterns"
  by (simp add: heads_in_def keyword_patterns_value keyword_starts_def)

lemma keyword_start_end: "end_ok None keyword_patterns"
  by (simp add: end_ok_def keyword_patterns_value)

lemma advance_map_code: "advance_map m (code x) = map_of m x"
  by (induction m) auto

lemma keyword_patterns_accepted:
  "accepts ts_lex_keywords_cases 0 w y \<longleftrightarrow> (\<exists>p. (p, y) \<in> set keyword_patterns \<and> matches p w)"
proof (rule accepts_step[OF keyword_start_case])
  fix x
  assume "x \<in> set (map fst keyword_starts)"
  then obtain q where q: "map_of keyword_starts x = Some q"
    by (metis map_of_eq_None_iff not_None_eq set_map)
  then have "words_ok keyword_length ts_lex_keywords_cases q (residual x keyword_patterns)"
    using keyword_start_walks map_of_SomeD[OF q] by (auto simp only: list_all_iff)
  from words_ok_accepts[OF this] q
  show "case case_goto False (code x)
      [ADVANCE_MAP keyword_starts,
       IF (OR (BETWEEN (CHR 0x09) (CHR 0x0D)) (EQ (CHR 0x20))) (SKIP 0)] of
      Some (ADVANCE q') \<Rightarrow>
        \<forall>w y. accepts ts_lex_keywords_cases q' w y \<longleftrightarrow>
          (\<exists>p. (p, y) \<in> set (residual x keyword_patterns) \<and> matches p w)
    | _ \<Rightarrow> residual x keyword_patterns = []"
    by (simp add: advance_map_code)
qed (simp_all add: keyword_start_heads[simplified] keyword_start_end)

text \<open>The words \<open>ts_lex_keywords\<close> accepts are the keywords, each with its token.\<close>

lemma keyword_language:
  "accepts ts_lex_keywords_cases 0 w y \<longleftrightarrow>
     (\<exists>sp. (sp, y) \<in> set keyword_spellings \<and> spells sp w)"
proof -
  have "(p, y) \<in> set keyword_patterns \<longleftrightarrow>
      (\<exists>sp. p = letters sp \<and> (sp, y) \<in> set keyword_spellings)" for p
    by (auto simp: keyword_patterns_def)
  then show ?thesis
    unfolding keyword_patterns_accepted by (metis matches_letters)
qed

end
