(* ===== verification/Identifier_Tokens.thy ===== *)
theory Identifier_Tokens
  imports Lexer_Correct
begin

text \<open>
  Identifiers in \<open>ts_lex\<close>. Sixty-five states of the lexer, 153 to 217, lie inside an identifier: the
  generator splits them to tell the prefixes of literals (\<open>T#\<close>, \<open>DATE#\<close>, \<open>BOOL#\<close>, ...) from other
  words. \<open>identifier_case\<close> is what these states have in common, as a check that computes.
\<close>

section \<open>The two character sets\<close>

definition identifier_start :: "code_point \<Rightarrow> bool" where
  "identifier_start c \<longleftrightarrow> set_contains sym_identifier_character_set_1 685 c = Some True"

definition identifier_char :: "code_point \<Rightarrow> bool" where
  "identifier_char c \<longleftrightarrow> set_contains sym_identifier_character_set_2 800 c = Some True"

lemma set_1_contains:
  "set_contains sym_identifier_character_set_1 685 c =
     Some (\<exists>r \<in> set sym_identifier_character_set_1. in_range c r)"
proof -
  have "unat (685 :: uint32) = length sym_identifier_character_set_1"
    by (simp add: character_set_1_length)
  moreover have "sym_identifier_character_set_1 \<noteq> []"
    using character_set_1_length by auto
  ultimately show ?thesis
    by (rule set_contains_ordered[OF character_set_1_ordered])
qed

lemma set_2_contains:
  "set_contains sym_identifier_character_set_2 800 c =
     Some (\<exists>r \<in> set sym_identifier_character_set_2. in_range c r)"
proof -
  have "unat (800 :: uint32) = length sym_identifier_character_set_2"
    by (simp add: character_set_2_length)
  moreover have "sym_identifier_character_set_2 \<noteq> []"
    using character_set_2_length by auto
  ultimately show ?thesis
    by (rule set_contains_ordered[OF character_set_2_ordered])
qed

lemma identifier_start_iff:
  "identifier_start c \<longleftrightarrow> (\<exists>r \<in> set sym_identifier_character_set_1. in_range c r)"
  by (simp add: identifier_start_def set_1_contains)

lemma identifier_char_iff:
  "identifier_char c \<longleftrightarrow> (\<exists>r \<in> set sym_identifier_character_set_2. in_range c r)"
  by (simp add: identifier_char_def set_2_contains)

text \<open>Every range of one ascending table lies in a range of the other; both are walked once.\<close>

function (sequential) covered :: "TSCharacterRange list \<Rightarrow> TSCharacterRange list \<Rightarrow> bool"
  and covered_step ::
    "bool \<Rightarrow> TSCharacterRange \<Rightarrow> TSCharacterRange list \<Rightarrow> TSCharacterRange \<Rightarrow> TSCharacterRange list \<Rightarrow>
       bool" where
  "covered [] qs = True"
| "covered (r # rs) [] = False"
| "covered (r # rs) (q # qs) = covered_step (snd q < fst r) r rs q qs"
| "covered_step True r rs q qs = covered (r # rs) qs"
| "covered_step False r rs q qs = (fst q \<le> fst r \<and> snd r \<le> snd q \<and> covered rs (q # qs))"
  by pat_completeness auto

termination
  by (relation "measure (\<lambda>x. case x of
      Inl (rs, qs) \<Rightarrow> 2 * (length rs + length qs)
    | Inr (b, r, rs, q, qs) \<Rightarrow> 2 * (length rs + length qs) + 3)") auto

lemma covered_in_range:
  "covered rs qs \<Longrightarrow> r \<in> set rs \<Longrightarrow> in_range c r \<Longrightarrow> \<exists>q \<in> set qs. in_range c q"
  "covered_step b r' rs q' qs \<Longrightarrow> r \<in> set (r' # rs) \<Longrightarrow> in_range c r \<Longrightarrow>
     \<exists>q \<in> set (q' # qs). in_range c q"
  by (induction rs qs and b r' rs q' qs rule: covered_covered_step.induct)
    (fastforce simp: in_range_def)+

lemma character_sets_covered: "covered sym_identifier_character_set_1 sym_identifier_character_set_2"
  by (simp add: sym_identifier_character_set_1_def sym_identifier_character_set_2_def)

lemma identifier_start_char: "identifier_start c \<Longrightarrow> identifier_char c"
  using covered_in_range(1)[OF character_sets_covered] by (auto simp: identifier_start_iff identifier_char_iff)

section \<open>ASCII\<close>

definition ascii_letter :: "code_point \<Rightarrow> bool" where
  ascii_letter_def [char_simps]: "ascii_letter c \<longleftrightarrow> 65 \<le> c \<and> c \<le> 90 \<or> c = 95 \<or> 97 \<le> c \<and> c \<le> 122"

lemma set_1_ascii:
  "\<exists>rs. sym_identifier_character_set_1 = (65, 90) # (95, 95) # (97, 122) # rs \<and> ascending 127 rs"
  by (simp add: sym_identifier_character_set_1_def)

lemma set_2_ascii:
  "\<exists>rs. sym_identifier_character_set_2 = (48, 57) # (65, 90) # (95, 95) # (97, 122) # rs \<and>
     ascending 127 rs"
  by (simp add: sym_identifier_character_set_2_def)

lemma ascending_not_below: "ascending b rs \<Longrightarrow> c \<le> b \<Longrightarrow> \<not> (\<exists>r \<in> set rs. in_range c r)"
  using ascending_bound by (force simp: in_range_def)

lemma identifier_start_ascii [char_simps]: "c \<le> 127 \<Longrightarrow> identifier_start c \<longleftrightarrow> ascii_letter c"
proof -
  assume c: "c \<le> 127"
  obtain rs where rs: "sym_identifier_character_set_1 = (65, 90) # (95, 95) # (97, 122) # rs"
      "ascending 127 rs"
    using set_1_ascii by blast
  show ?thesis
    using ascending_not_below[OF rs(2) c] unfolding identifier_start_iff rs(1)
    by (auto simp: in_range_def ascii_letter_def)
qed

lemma identifier_char_ascii [char_simps]: "c \<le> 127 \<Longrightarrow> identifier_char c \<longleftrightarrow> ascii_letter c \<or> 48 \<le> c \<and> c \<le> 57"
proof -
  assume c: "c \<le> 127"
  obtain rs where rs: "sym_identifier_character_set_2 = (48, 57) # (65, 90) # (95, 95) # (97, 122) # rs"
      "ascending 127 rs"
    using set_2_ascii by blast
  show ?thesis
    using ascending_not_below[OF rs(2) c] unfolding identifier_char_iff rs(1)
    by (auto simp: in_range_def ascii_letter_def)
qed

section \<open>The states inside an identifier\<close>

definition inside :: "TSStateId \<Rightarrow> bool" where
  "inside q \<longleftrightarrow> 153 \<le> q \<and> q \<le> 217"

text \<open>The states after \<open>I\<close>, \<open>M\<close> and \<open>Q\<close> in state 0, where these letters are tokens of their own.\<close>

definition location_letter :: "TSStateId \<Rightarrow> bool" where
  "location_letter q \<longleftrightarrow> q = 146 \<or> q = 149 \<or> q = 152"

text \<open>The other states of a token; no identifier ends in one of them.\<close>

definition away :: "TSStateId \<Rightarrow> bool" where
  "away q \<longleftrightarrow> \<not> inside q \<and> \<not> location_letter q \<and> q \<notin> set lex_starts"

fun identifier_stmt :: "lex_stmt \<Rightarrow> bool" where
  "identifier_stmt (ACCEPT_TOKEN y) = (y = sym_identifier)"
| "identifier_stmt (IF (EQ x) (ADVANCE q)) =
     (if x = CHR ''#'' then away q else ascii_letter (code x) \<and> inside q)"
| "identifier_stmt (IF (OR (EQ x) (EQ x')) (ADVANCE q)) =
     (ascii_letter (code x) \<and> ascii_letter (code x') \<and> inside q)"
| "identifier_stmt (IF (SET rs n) (ADVANCE q)) =
     (rs = sym_identifier_character_set_2 \<and> n = 800 \<and> inside q)"
| "identifier_stmt st = False"

definition identifier_case :: "lex_case \<Rightarrow> bool" where
  "identifier_case k \<longleftrightarrow>
     case_accepts k = Some sym_identifier \<and> list_all identifier_stmt k \<and>
     last k = IF (SET sym_identifier_character_set_2 800) (ADVANCE 217)"

definition away_case :: "lex_case \<Rightarrow> bool" where
  "away_case k \<longleftrightarrow>
     case_accepts k \<noteq> Some sym_identifier \<and> list_all (\<lambda>st. list_all away (advance_targets st)) k"

lemma identifier_cases: "list_all (\<lambda>(q, k). inside q \<longrightarrow> identifier_case k) ts_lex_cases"
  by (simp add: ts_lex_cases_def ts_lex_parts inside_def identifier_case_def ascii_letter_def
      code_def away_def location_letter_def lex_starts_def)

lemma away_cases: "list_all (\<lambda>(q, k). away q \<longrightarrow> away_case k) ts_lex_cases"
  by (simp add: ts_lex_cases_def ts_lex_parts inside_def away_case_def
      away_def location_letter_def lex_starts_def token_numbers)

lemma ascii_letter_char [simp]: "ascii_letter c \<Longrightarrow> identifier_char c"
  by (subst identifier_char_ascii) (auto simp: ascii_letter_def)

lemma ascii_letter_start [simp]: "ascii_letter c \<Longrightarrow> identifier_start c"
  by (subst identifier_start_ascii) (auto simp: ascii_letter_def)

lemma pound_no_char [simp]: "\<not> identifier_char (code CHR ''#'')"
  by (simp add: identifier_char_ascii ascii_letter_def code_def)

lemma identifier_case_goto:
  "list_all identifier_stmt k \<Longrightarrow> case_goto e c k = Some g \<Longrightarrow>
     \<exists>q. g = ADVANCE q \<and> (if identifier_char c then inside q else c = code CHR ''#'' \<and> away q)"
  by (induction e c k rule: case_goto.induct)
    (auto split: if_splits option.splits elim!: identifier_stmt.elims(2)
      simp: identifier_char_def[symmetric])

lemma case_goto_some:
  "IF p g \<in> set k \<Longrightarrow> holds e c p \<Longrightarrow> case_goto e c k \<noteq> None"
  by (induction e c k rule: case_goto.induct) (auto split: option.splits)

lemma inside_delta:
  assumes "inside q"
  shows "identifier_char c \<Longrightarrow> \<exists>q'. delta ts_lex_cases q c = Some q' \<and> inside q'"
    and "\<not> identifier_char c \<Longrightarrow> delta ts_lex_cases q c = Some q' \<Longrightarrow> c = code CHR ''#'' \<and> away q'"
    and "accepting ts_lex_cases q = Some sym_identifier"
proof -
  obtain k where k: "map_of ts_lex_cases q = Some k"
    using lex.lookup_Some[of q] assms by (auto simp: inside_def)
  then have ok: "identifier_case k"
    using identifier_cases assms by (auto simp: list_all_iff dest: map_of_SomeD)
  then have goto: "\<exists>q. g = ADVANCE q \<and> (if identifier_char c then inside q else c = code CHR ''#'' \<and> away q)"
    if "case_goto e c k = Some g" for e c g
    using ok identifier_case_goto[OF _ that] unfolding identifier_case_def by blast
  have "IF (SET sym_identifier_character_set_2 800) (ADVANCE 217) \<in> set k"
    using ok by (metis identifier_case_def case_accepts.simps(2) last_in_set option.distinct(1))
  then have "case_goto False c k \<noteq> None" if "identifier_char c"
    using that by (intro case_goto_some) (auto simp: identifier_char_def)
  with goto k show "identifier_char c \<Longrightarrow> \<exists>q'. delta ts_lex_cases q c = Some q' \<and> inside q'"
    by (fastforce simp: delta_def state_goto_def)
  show "\<not> identifier_char c \<Longrightarrow> delta ts_lex_cases q c = Some q' \<Longrightarrow> c = code CHR ''#'' \<and> away q'"
    using k by (auto simp: delta_def state_goto_def split: option.splits lex_goto.splits dest!: goto)
  show "accepting ts_lex_cases q = Some sym_identifier"
    using k ok by (simp add: accepting_def identifier_case_def)
qed

lemma away_delta:
  assumes "away q"
  shows "delta ts_lex_cases q c = Some q' \<Longrightarrow> away q'"
    and "accepting ts_lex_cases q \<noteq> Some sym_identifier"
proof -
  have ok: "away_case k" if "map_of ts_lex_cases q = Some k" for k
    using away_cases assms that by (auto simp: list_all_iff dest: map_of_SomeD)
  show "delta ts_lex_cases q c = Some q' \<Longrightarrow> away q'"
    by (auto simp: delta_def state_goto_def away_case_def list_all_iff
        split: option.splits lex_goto.splits dest!: ok case_goto_ADVANCE)
  show "accepting ts_lex_cases q \<noteq> Some sym_identifier"
    using ok by (auto simp: accepting_def away_case_def split: option.splits)
qed

lemma away_accepts: "away q \<Longrightarrow> \<not> accepts ts_lex_cases q w sym_identifier"
  by (induction w arbitrary: q) (auto simp: accepts_Nil accepts_Cons away_delta)

lemma inside_accepts:
  "inside q \<Longrightarrow> accepts ts_lex_cases q w sym_identifier \<longleftrightarrow> list_all identifier_char w"
proof (induction w arbitrary: q)
  case (Cons c w)
  show ?case
  proof (cases "identifier_char c")
    case True
    with inside_delta(1)[OF Cons.prems True] Cons.IH show ?thesis
      by (auto simp: accepts_Cons)
  next
    case False
    with inside_delta(2)[OF Cons.prems False] away_accepts show ?thesis
      by (auto simp: accepts_Cons)
  qed
qed (simp add: accepts_Nil inside_delta)

section \<open>The start states\<close>

definition blank :: "code_point \<Rightarrow> bool" where
  blank_def [char_simps]: "blank c \<longleftrightarrow> 9 \<le> c \<and> c \<le> 13 \<or> c = 32"

text \<open>The start states from which an identifier can be read.\<close>

definition word_states :: "TSStateId list" where
  "word_states = [0, 1, 2, 3, 4, 7, 8, 12, 13, 63]"

definition word_jump :: "TSStateId \<Rightarrow> char \<Rightarrow> TSStateId \<Rightarrow> bool" where
  "word_jump q0 x q \<longleftrightarrow>
     code x \<le> 127 \<and> \<not> blank (code x) \<and>
     (if ascii_letter (code x)
      then inside q \<or> q0 = 0 \<and> List.member ''IMQ'' x \<and> location_letter q
      else away q)"

fun word_stmt :: "TSStateId \<Rightarrow> lex_stmt \<Rightarrow> bool" where
  "word_stmt q0 (ADVANCE_MAP m) = list_all (\<lambda>(x, q). word_jump q0 x q) m"
| "word_stmt q0 (IF EOF (ADVANCE q)) = True"
| "word_stmt q0 (IF (EQ x) (ADVANCE q)) = word_jump q0 x q"
| "word_stmt q0 (IF (OR (EQ x) (EQ x')) (ADVANCE q)) = (word_jump q0 x q \<and> word_jump q0 x' q)"
| "word_stmt q0 (IF (OR (BETWEEN a b) (EQ x)) (SKIP q)) =
     (a = CHR 0x09 \<and> b = CHR 0x0D \<and> x = CHR '' '' \<and> q = q0)"
| "word_stmt q0 (IF (BETWEEN a b) (ADVANCE q)) = (a = CHR ''0'' \<and> b = CHR ''9'' \<and> away q)"
| "word_stmt q0 (IF (SET rs n) (ADVANCE q)) =
     (rs = sym_identifier_character_set_1 \<and> n = 685 \<and> inside q)"
| "word_stmt q0 st = False"

definition word_case :: "TSStateId \<Rightarrow> lex_case \<Rightarrow> bool" where
  "word_case q0 k \<longleftrightarrow>
     list_all (word_stmt q0) k \<and>
     IF (OR (BETWEEN (CHR 0x09) (CHR 0x0D)) (EQ (CHR '' ''))) (SKIP q0) \<in> set k \<and>
     IF (SET sym_identifier_character_set_1 685) (ADVANCE 217) \<in> set k"

lemma word_cases: "list_all (\<lambda>(q, k). List.member word_states q \<longrightarrow> word_case q k) ts_lex_cases"
  by (simp add: ts_lex_cases_def ts_lex_parts word_states_def word_case_def word_jump_def
      inside_def ascii_letter_def blank_def code_def away_def location_letter_def lex_starts_def)

text \<open>Where a start state goes on a character.\<close>

definition word_goto :: "TSStateId \<Rightarrow> code_point \<Rightarrow> lex_goto \<Rightarrow> bool" where
  "word_goto q0 c g \<longleftrightarrow>
     (if blank c then g = SKIP q0
      else \<exists>q. g = ADVANCE q \<and>
        (if identifier_start c
         then inside q \<or> q0 = 0 \<and> c \<in> code ` set ''IMQ'' \<and> location_letter q
         else away q))"

lemma word_jump_goto: "word_jump q0 x q \<Longrightarrow> word_goto q0 (code x) (ADVANCE q)"
  using identifier_start_ascii[of "code x"]
  by (auto simp: word_jump_def word_goto_def split: if_splits)

lemma advance_map_jump:
  "list_all (\<lambda>(x, q). word_jump q0 x q) m \<Longrightarrow> advance_map m c = Some q \<Longrightarrow> word_goto q0 c (ADVANCE q)"
  by (induction m c rule: advance_map.induct) (auto split: if_splits simp: word_jump_goto)

lemma digit_goto: "away q \<Longrightarrow> code CHR ''0'' \<le> c \<Longrightarrow> c \<le> code CHR ''9'' \<Longrightarrow> word_goto q0 c (ADVANCE q)"
  using identifier_start_ascii[of c] by (auto simp: word_goto_def blank_def code_def ascii_letter_def)

lemma blank_not_start [simp]: "blank c \<Longrightarrow> \<not> identifier_start c"
  using identifier_start_ascii[of c] by (auto simp: blank_def ascii_letter_def)

lemma blank_goto:
  "code CHR 0x09 \<le> c \<Longrightarrow> c \<le> code CHR 0x0D \<Longrightarrow> word_goto q0 c (SKIP q0)"
  "word_goto q0 (code CHR '' '') (SKIP q0)"
  by (simp_all add: word_goto_def blank_def code_def)

lemma set_goto: "identifier_start c \<Longrightarrow> inside q \<Longrightarrow> word_goto q0 c (ADVANCE q)"
  by (auto simp: word_goto_def)

lemma word_stmt_goto:
  "word_stmt q0 (IF p g) \<Longrightarrow> holds False c p \<Longrightarrow> word_goto q0 c g"
  by (cases "(q0, IF p g)" rule: word_stmt.cases)
    (auto simp: word_jump_goto digit_goto blank_goto set_goto identifier_start_def[symmetric])

lemma word_case_goto:
  "list_all (word_stmt q0) k \<Longrightarrow> case_goto False c k = Some g \<Longrightarrow> word_goto q0 c g"
  by (induction False c k rule: case_goto.induct)
    (auto split: if_splits option.splits dest: advance_map_jump word_stmt_goto)

lemma word_state:
  assumes "q \<in> set word_states"
  shows "skips ts_lex_cases q c \<longleftrightarrow> blank c"
    and "identifier_start c \<Longrightarrow> \<exists>q'. delta ts_lex_cases q c = Some q' \<and>
      (inside q' \<or> q = 0 \<and> c \<in> code ` set ''IMQ'' \<and> location_letter q')"
    and "\<not> identifier_start c \<Longrightarrow> delta ts_lex_cases q c = Some q' \<Longrightarrow> away q'"
    and "accepting ts_lex_cases q = None"
proof -
  have "q < 220" "q \<in> set lex_starts"
    using assms by (auto simp: word_states_def lex_starts_def)
  then show "accepting ts_lex_cases q = None"
    using lex.start_goto(1) by blast
  obtain k where k: "map_of ts_lex_cases q = Some k"
    using lex.lookup_Some \<open>q < 220\<close> by blast
  then have ok: "word_case q k"
    using word_cases assms by (auto simp: list_all_iff dest: map_of_SomeD)
  have goto: "word_goto q c g" if "state_goto ts_lex_cases q False c = Some g" for g
    using that k ok word_case_goto[of q k c g] by (simp add: state_goto_def word_case_def)
  have "state_goto ts_lex_cases q False c \<noteq> None" if "blank c \<or> identifier_start c"
  proof -
    have members: "IF (OR (BETWEEN (CHR 0x09) (CHR 0x0D)) (EQ (CHR '' ''))) (SKIP q) \<in> set k"
        "IF (SET sym_identifier_character_set_1 685) (ADVANCE 217) \<in> set k"
      using ok by (simp_all add: word_case_def)
    have "case_goto False c k \<noteq> None"
      using that case_goto_some[OF members(1), of False c] case_goto_some[OF members(2), of False c]
      by (auto simp: blank_def code_def identifier_start_def)
    with k show ?thesis
      by (simp add: state_goto_def)
  qed
  with goto show "identifier_start c \<Longrightarrow> \<exists>q'. delta ts_lex_cases q c = Some q' \<and>
      (inside q' \<or> q = 0 \<and> c \<in> code ` set ''IMQ'' \<and> location_letter q')"
    "skips ts_lex_cases q c \<longleftrightarrow> blank c"
    by (auto simp: delta_def skips_def word_goto_def split: if_splits)
  show "\<not> identifier_start c \<Longrightarrow> delta ts_lex_cases q c = Some q' \<Longrightarrow> away q'"
    by (auto simp: delta_def word_goto_def split: option.splits lex_goto.splits if_splits dest!: goto)
qed

text \<open>After \<open>I\<close>, \<open>M\<close> or \<open>Q\<close> in state 0.\<close>

lemma location_delta:
  assumes "location_letter q"
  shows "delta ts_lex_cases q c = (if identifier_char c then Some 217 else None)"
    and "accepting ts_lex_cases q \<noteq> Some sym_identifier"
  using assms
  by (auto simp: location_letter_def delta_def state_goto_def accepting_def lex_lookup token_numbers
      identifier_char_def[symmetric])

lemma location_start_delta:
  "delta ts_lex_cases 0 (code CHR ''I'') = Some 146"
  "delta ts_lex_cases 0 (code CHR ''M'') = Some 152"
  "delta ts_lex_cases 0 (code CHR ''Q'') = Some 149"
  by (simp_all add: delta_def state_goto_def lex_lookup)

lemma location_start:
  "c \<in> code ` set ''IMQ'' \<Longrightarrow> \<exists>q'. delta ts_lex_cases 0 c = Some q' \<and> location_letter q'"
  by (auto simp: location_start_delta location_letter_def)

lemma inside_217: "inside 217"
  by (simp add: inside_def)

lemma location_accepts:
  "location_letter q \<Longrightarrow>
     accepts ts_lex_cases q w sym_identifier \<longleftrightarrow> w \<noteq> [] \<and> list_all identifier_char w"
  by (cases w) (auto simp: accepts_Nil accepts_Cons location_delta inside_accepts[OF inside_217])

section \<open>The identifiers\<close>

fun identifier_word :: "code_point list \<Rightarrow> bool" where
  "identifier_word [] = False"
| "identifier_word (c # cs) = (identifier_start c \<and> list_all identifier_char cs)"

text \<open>In state 0 the words \<open>I\<close>, \<open>M\<close> and \<open>Q\<close> are the tokens of a located variable.\<close>

definition location_word :: "TSStateId \<Rightarrow> code_point list \<Rightarrow> bool" where
  "location_word q w \<longleftrightarrow> q = 0 \<and> (\<exists>x \<in> set ''IMQ''. w = [code x])"

lemma identifier_accepted:
  assumes "q \<in> set word_states"
  shows "accepts ts_lex_cases q w sym_identifier \<longleftrightarrow> identifier_word w \<and> \<not> location_word q w"
proof (cases w)
  case Nil
  then show ?thesis by (simp add: accepts_Nil word_state(4)[OF assms])
next
  case (Cons c v)
  show ?thesis
  proof (cases "identifier_start c")
    case False
    with word_state(3)[OF assms False] away_accepts Cons show ?thesis
      by (auto simp: accepts_Cons)
  next
    case True
    then obtain q' where q': "delta ts_lex_cases q c = Some q'"
        "inside q' \<or> q = 0 \<and> c \<in> code ` set ''IMQ'' \<and> location_letter q'"
      using word_state(2)[OF assms] by blast
    have "location_letter q'" if "q = 0" "c \<in> code ` set ''IMQ''"
      using that q'(1) location_start[of c] by auto
    moreover have "\<not> (inside q' \<and> location_letter q')"
      by (auto simp: inside_def location_letter_def)
    ultimately show ?thesis
      using q' True Cons
      by (auto simp: accepts_Cons inside_accepts location_accepts location_word_def)
  qed
qed

text \<open>
  The longest token from a start state, when an identifier stands there and what follows it neither
  goes on with it nor is the \<open>#\<close> of a literal's prefix.
\<close>

definition word_ends :: "code_point list \<Rightarrow> bool" where
  "word_ends e \<longleftrightarrow> e = [] \<or> \<not> identifier_char (hd e) \<and> hd e \<noteq> code CHR ''#''"

lemma inside_longest:
  "inside q \<Longrightarrow> list_all identifier_char v \<Longrightarrow> word_ends e \<Longrightarrow>
     longest ts_lex_cases q None (v @ e) = Some (sym_identifier, e)"
proof (induction v arbitrary: q)
  case Nil
  show ?case
  proof (cases e)
    case Nil
    with \<open>inside q\<close> show ?thesis by (simp add: inside_delta)
  next
    case (Cons h e')
    with Nil.prems inside_delta(2)[OF Nil.prems(1), of h] have "delta ts_lex_cases q h = None"
      by (cases "delta ts_lex_cases q h") (auto simp: word_ends_def)
    with Cons Nil.prems show ?thesis
      by (simp add: longest_Cons_None inside_delta)
  qed
next
  case (Cons c v)
  then obtain q' where "delta ts_lex_cases q c = Some q'" "inside q'"
    using inside_delta(1) by fastforce
  with Cons show ?case
    by (simp add: longest_Cons_None)
qed

lemma identifier_longest:
  assumes "q \<in> set word_states" and "identifier_word w" and "\<not> location_word q w" and "word_ends e"
  shows "longest ts_lex_cases q None (w @ e) = Some (sym_identifier, e)"
proof -
  obtain c v where w: "w = c # v" "identifier_start c" "list_all identifier_char v"
    using assms(2) by (cases w) auto
  obtain q' where q': "delta ts_lex_cases q c = Some q'"
      "inside q' \<or> q = 0 \<and> c \<in> code ` set ''IMQ'' \<and> location_letter q'"
    using word_state(2)[OF assms(1) w(2)] by blast
  have "longest ts_lex_cases q' None (v @ e) = Some (sym_identifier, e)"
  proof (cases "inside q'")
    case True
    with w assms(4) show ?thesis by (simp add: inside_longest)
  next
    case False
    with q' have "location_letter q'" "v \<noteq> []"
      using assms(3) w(1) by (auto simp: location_word_def)
    with w assms(4) show ?thesis
      by (cases v) (auto simp: longest_Cons_None location_delta inside_longest[OF inside_217])
  qed
  with q' w show ?thesis
    by (simp add: longest_Cons_None)
qed

end
