(* ===== verification/Lexer_Properties.thy ===== *)
theory Lexer_Properties
  imports Keyword_Language Identifier_Tokens
begin

text \<open>
  The properties of the two generated lexers, over any lexer that meets the documented contract.
\<close>

section \<open>Every call returns the longest token\<close>

text \<open>
  C13. From every state, one the table has or not, and on every input, both generated lexers return:
  the loop of \<open>goto\<close>s ends.
\<close>

theorem lexers_return:
  assumes "lexer_contract L view" and "token_ready view s xs"
  shows "(\<exists>r s'. ts_lex L q s = Some (r, s')) \<and> (\<exists>r s'. ts_lex_keywords L q s = Some (r, s'))"
  unfolding ts_lex_def ts_lex_keywords_def
  using start_lexer_returns[OF assms(1) lex.lexer_table_axioms assms(2)]
    start_lexer_returns[OF assms(1) kw.lexer_table_axioms assms(2)] by blast

theorem lexers_return_witness:
  "\<exists>r s'. ts_lex buffer_lexer 1 (open_string ''16#FF'') = Some (r, s')"
  using lexers_return[OF buffer.lexer_contract_axioms token_ready_buffer]
  by (simp add: open_string_def)

text \<open>
  C12. \<open>ts_lex\<close> in a state of its table skips what the state skips; at the end of the input it returns
  the token the state accepts there, elsewhere the longest prefix the automaton of the table accepts,
  with its symbol and its end, and false when there is none.
\<close>

theorem ts_lex_takes_longest_match:
  assumes "lexer_contract L view" and "token_ready view s xs" and "q < 220"
  shows "scanned view (ts_lex L q s) y b e \<longleftrightarrow>
    b = dropWhile (skips ts_lex_cases q) xs \<and>
    (if b = [] then end_token ts_lex_cases q = Some (y, e) else longest_token ts_lex_cases q b y e)"
  unfolding ts_lex_def by (rule start_lexer_scanned[OF assms(1) lex.lexer_table_axioms assms(2,3)])

theorem ts_lex_takes_longest_match_witness:
  "scanned id (ts_lex buffer_lexer 0 (open_string '' '')) ts_builtin_sym_end [] []"
  unfolding open_string_def
  by (subst ts_lex_takes_longest_match[OF buffer.lexer_contract_axioms token_ready_buffer])
    (simp_all add: end_token_def skips_def state_goto_def accepting_def lex_lookup char_simps)

section \<open>Keywords\<close>

text \<open>
  C5. The words that \<open>ts_lex_keywords\<close> accepts are the keywords of the grammar, in any case where
  the grammar allows any, each with its own token; its 666 states accept nothing else.
\<close>

theorem keyword_automaton_language:
  "accepts ts_lex_keywords_cases 0 w y \<longleftrightarrow>
     (\<exists>sp. (sp, y) \<in> set keyword_spellings \<and> spells sp w)"
  by (rule keyword_language)

lemma keyword_letters:
  "list_all (\<lambda>(p, y). p \<noteq> [] \<and> list_all (list_all (\<lambda>x. ascii_letter (code x))) p) keyword_patterns"
  unfolding keyword_patterns_value by (simp add: char_simps cong: list_all_weak)

lemma keyword_no_location:
  "list_all (\<lambda>(p, y). list_all (\<lambda>x. \<not> matches p [code x]) ''IMQ'') keyword_patterns"
  unfolding keyword_patterns_value by (simp cong: list_all_weak)

lemma keyword_pattern: "(sp, y) \<in> set keyword_spellings \<Longrightarrow> (letters sp, y) \<in> set keyword_patterns"
  by (force simp: keyword_patterns_def)

lemma keyword_is_identifier:
  assumes "(sp, y) \<in> set keyword_spellings" and "spells sp w"
  shows "identifier_word w" and "\<not> location_word q w"
proof -
  have p: "(letters sp, y) \<in> set keyword_patterns" "matches (letters sp) w"
    using keyword_pattern assms by (simp_all add: matches_letters)
  then have "letters sp \<noteq> []" "\<forall>cs \<in> set (letters sp). \<forall>x \<in> set cs. ascii_letter (code x)"
    using keyword_letters by (auto simp: list_all_iff)
  then obtain c v where w: "w = c # v" "ascii_letter c" "\<forall>d \<in> set v. ascii_letter d"
    using p(2) by (cases "letters sp"; cases w) (fastforce simp: matches_def list_all2_conv_all_nth in_set_conv_nth)+
  then show "identifier_word w"
    by (auto simp: list_all_iff)
  show "\<not> location_word q w"
    using p keyword_no_location by (auto simp: location_word_def list_all_iff)
qed

lemma keyword_starts_not_blank: "list_all (\<lambda>(x, q). \<not> blank (code x)) keyword_starts"
  by (simp add: keyword_starts_def char_simps)

lemma keyword_blanks: "skips ts_lex_keywords_cases 0 c \<longleftrightarrow> blank c"
proof -
  have "advance_map keyword_starts c = None" if "blank c"
  proof (rule ccontr)
    assume "advance_map keyword_starts c \<noteq> None"
    then obtain q where "advance_map keyword_starts c = Some q" by auto
    from advance_map_chars[OF this] that keyword_starts_not_blank show False
      by (auto simp: list_all_iff)
  qed
  then show ?thesis
    by (auto simp: skips_def state_goto_def keyword_start_case char_simps split: option.splits)
qed

lemma blanks_dropped:
  assumes "list_all blank ws" and "identifier_word w"
  shows "dropWhile blank (ws @ w @ e) = w @ e"
proof -
  obtain c v where w: "w = c # v" "identifier_start c"
    using assms(2) by (cases w) auto
  then have "\<not> blank c"
    using blank_not_start by blast
  then show ?thesis
    using assms(1) w by (induction ws) auto
qed

text \<open>No keyword goes on past the end of a word, so the longest match of a word is the whole word.\<close>

lemma keyword_longest:
  assumes "identifier_word w" and "e = [] \<or> \<not> identifier_char (hd e)"
  shows "longest_token ts_lex_keywords_cases 0 (w @ e) y e \<longleftrightarrow>
    (\<exists>sp. (sp, y) \<in> set keyword_spellings \<and> spells sp w)"
proof -
  have "length w' \<le> length w" if prefix: "w @ e = w' @ r'" "accepts ts_lex_keywords_cases 0 w' y'"
    for w' r' y'
  proof (rule ccontr)
    assume "\<not> length w' \<le> length w"
    moreover obtain u where "w = w' @ u \<and> u @ e = r' \<or> w @ u = w' \<and> e = u @ r'"
      using prefix(1)[unfolded append_eq_append_conv2] by blast
    ultimately have "w' = w @ u" "u \<noteq> []" "e = u @ r'"
      by auto
    moreover have "identifier_word w'"
      using prefix(2) keyword_is_identifier(1) by (auto simp: keyword_language)
    ultimately show False
      using assms by (cases w; cases u) auto
  qed
  then show ?thesis
    unfolding longest_token_def by (auto simp: keyword_language)
qed

text \<open>
  On a word that ends where no character can continue it, after any white space,
  \<open>ts_lex_keywords\<close> finds the token \<open>y\<close> up to the end of the word exactly when the word is a spelling
  of the keyword \<open>y\<close>.
\<close>

lemma word_is_keyword_iff:
  assumes "lexer_contract L view" and "token_ready view s (ws @ w @ e)" and "list_all blank ws"
    and "identifier_word w" and "e = [] \<or> \<not> identifier_char (hd e)"
  shows "scanned view (ts_lex_keywords L 0 s) y (w @ e) e \<longleftrightarrow>
    (\<exists>sp. (sp, y) \<in> set keyword_spellings \<and> spells sp w)"
proof -
  have "w \<noteq> []" using assms(4) by auto
  moreover have "dropWhile (skips ts_lex_keywords_cases 0) (ws @ w @ e) = w @ e"
    using blanks_dropped[OF assms(3,4)] by (simp add: keyword_blanks[abs_def])
  ultimately show ?thesis
    unfolding ts_lex_keywords_def
    by (subst start_lexer_scanned[OF assms(1) kw.lexer_table_axioms assms(2)])
      (simp_all add: keyword_longest[OF assms(4,5)])
qed

section \<open>Identifiers\<close>

text \<open>
  C26. From each of the ten states that read a word, \<open>ts_lex\<close> accepts as identifiers the words that
  start with a character of the first table and go on with characters of the second, except \<open>I\<close>,
  \<open>M\<close> and \<open>Q\<close> in the error state 0.
\<close>

theorem identifier_language:
  assumes "q \<in> set word_states"
  shows "accepts ts_lex_cases q w sym_identifier \<longleftrightarrow> identifier_word w \<and> \<not> location_word q w"
  by (rule identifier_accepted[OF assms])

theorem identifier_language_witness:
  "accepts ts_lex_cases 63 (map code ''Motor_1'') sym_identifier \<and>
   \<not> accepts ts_lex_cases 0 (map code ''Q'') sym_identifier"
  using identifier_language[of 63 "map code ''Motor_1''"] identifier_language[of 0 "map code ''Q''"]
  by (simp add: word_states_def location_word_def char_simps)

text \<open>
  An identifier is taken whole: after white space and up to its first character that cannot
  continue it, unless that is the \<open>#\<close> of a literal's prefix.
\<close>

lemma identifier_taken_whole:
  assumes "lexer_contract L view" and "token_ready view s (ws @ w @ e)" and "list_all blank ws"
    and "q \<in> set word_states" and "identifier_word w" and "\<not> location_word q w" and "word_ends e"
  shows "scanned view (ts_lex L q s) y b r \<longleftrightarrow> y = sym_identifier \<and> b = w @ e \<and> r = e"
proof -
  have q: "q < 220" using assms(4) by (auto simp: word_states_def)
  have w: "w \<noteq> []" using assms(5) by auto
  have b: "dropWhile (skips ts_lex_cases q) (ws @ w @ e) = w @ e"
    using blanks_dropped[OF assms(3,5)] by (simp add: word_state(1)[OF assms(4), abs_def])
  show ?thesis
    unfolding ts_lex_def start_lexer_scanned[OF assms(1) lex.lexer_table_axioms assms(2) q] b
    using w identifier_longest[OF assms(4-7)] by (auto simp flip: longest_token_iff)
qed

text \<open>
  A word that is a keyword is read by both lexers: by the first as an identifier.
\<close>

lemma keyword_read:
  assumes "lexer_contract L view" and "token_ready view s (ws @ w @ e)" and "list_all blank ws"
    and "q \<in> set word_states" and "(sp, y) \<in> set keyword_spellings" and "spells sp w"
    and "word_ends e"
  shows "scanned view (ts_lex L q s) sym_identifier (w @ e) e \<and>
    scanned view (ts_lex_keywords L 0 s) y (w @ e) e"
proof
  note word = keyword_is_identifier[OF assms(5,6)]
  have q: "q < 220" using assms(4) by (auto simp: word_states_def)
  have w: "w \<noteq> []" using word(1) by auto
  have b: "dropWhile (skips ts_lex_cases q) (ws @ w @ e) = w @ e"
      "dropWhile (skips ts_lex_keywords_cases 0) (ws @ w @ e) = w @ e"
    using blanks_dropped[OF assms(3) word(1)]
    by (simp_all add: word_state(1)[OF assms(4), abs_def] keyword_blanks[abs_def])
  show "scanned view (ts_lex L q s) sym_identifier (w @ e) e"
    unfolding ts_lex_def start_lexer_scanned[OF assms(1) lex.lexer_table_axioms assms(2) q] b
    using w identifier_longest[OF assms(4) word assms(7)] by (auto simp flip: longest_token_iff)
  show "scanned view (ts_lex_keywords L 0 s) y (w @ e) e"
    unfolding ts_lex_keywords_def
    by (subst start_lexer_scanned[OF assms(1) kw.lexer_table_axioms assms(2)])
      (use w b(2) keyword_longest[OF word(1), of e y] assms(5-7) in \<open>auto simp: word_ends_def\<close>)
qed

text \<open>
  C6. A keyword, in any case it may have, is read as an identifier by \<open>ts_lex\<close> and then, from the
  same position, as its own token by \<open>ts_lex_keywords\<close>, both up to the end of the word: the runtime,
  which asks the keyword lexer about every identifier, finds the keyword whichever of the ten states
  the parser is in.
\<close>

theorem keyword_found_in_identifier:
  assumes "lexer_contract L view" and "token_ready view s (ws @ w @ e)" and "list_all blank ws"
    and "q \<in> set word_states" and "(sp, y) \<in> set keyword_spellings" and "spells sp w"
    and "word_ends e"
  shows "scanned view (ts_lex L q s) sym_identifier (w @ e) e \<and>
    scanned view (ts_lex_keywords L 0 s) y (w @ e) e"
  by (rule keyword_read[OF assms])

theorem keyword_found_in_identifier_witness:
  "scanned id (ts_lex buffer_lexer 1 (open_buffer ([] @ map code ''Xor'' @ map code '' b'')))
     sym_identifier (map code ''Xor'' @ map code '' b'') (map code '' b'')"
proof -
  have "(Any_Case ''XOR'', aux_sym_xor_operator_token1) \<in> set keyword_spellings"
    by (simp add: keyword_spellings_def)
  from keyword_found_in_identifier[OF buffer.lexer_contract_axioms token_ready_buffer _ _ this,
      where ws = "[]" and w = "map code ''Xor''" and e = "map code '' b''" and q = 1]
  show ?thesis
    by (simp add: word_states_def word_ends_def other_case_upper char_simps)
qed

section \<open>The character sets\<close>

text \<open>
  The binary search \<open>set_contains\<close> never reads outside either table, and answers for every
  character, whatever its value, whether one of the 685 or 800 ranges holds it.
\<close>

lemma identifier_sets_searched:
  "set_contains sym_identifier_character_set_1 685 c =
     Some (\<exists>r \<in> set sym_identifier_character_set_1. in_range c r) \<and>
   set_contains sym_identifier_character_set_2 800 c =
     Some (\<exists>r \<in> set sym_identifier_character_set_2. in_range c r)"
  by (simp add: set_1_contains set_2_contains)

text \<open>
  Every character an identifier may start with may also go on with it; on ASCII these are the
  letters and the underscore, and the digits are added after the first; no identifier holds a white
  space that the lexers skip.
\<close>

lemma identifier_sets_nested:
  "{c. identifier_start c} \<subseteq> {c. identifier_char c} \<and>
   {c. identifier_start c \<and> c \<le> 127} = {65..90} \<union> {95} \<union> {97..122} \<and>
   {c. identifier_char c \<and> c \<le> 127} = {c. identifier_start c \<and> c \<le> 127} \<union> {48..57} \<and>
   {c. identifier_char c} \<inter> {c. blank c} = {}"
proof -
  have "{c. identifier_start c \<and> c \<le> 127} = {65..90} \<union> {95} \<union> {97..122}"
    by (auto simp: identifier_start_ascii ascii_letter_def)
  moreover have "{c. identifier_char c \<and> c \<le> 127} = {65..90} \<union> {95} \<union> {97..122} \<union> {48..57}"
    by (auto simp: identifier_char_ascii ascii_letter_def)
  moreover have "\<not> identifier_char c" if "blank c" for c
    using that identifier_char_ascii[of c] by (auto simp: blank_def ascii_letter_def)
  ultimately show ?thesis
    using identifier_start_char by auto
qed

end
