(* ===== verification/Token_Regexps.thy ===== *)
theory Token_Regexps
  imports Identifier_Tokens Keyword_Language
begin

text \<open>
  Regular expressions over code points, as \<open>src/crates/tree-sitter/grammar.js\<close> writes the tokens of
  the language, and what it means that an automaton of the generated lexer reads them: the locale
  \<open>expression_automaton\<close> keeps, for each state, the expressions that are left to read there, and
  proves that a word is accepted as the first of them that it belongs to.
\<close>

section \<open>Expressions\<close>

text \<open>
  A set of characters: ranges \<open>[a-z...]\<close>; all but some \<open>[^...]\<close>, which excludes the null character
  that stands for the end of the input as well; and the two classes an identifier is made of.
\<close>

datatype char_set =
    In "(char \<times> char) list"
  | Not_In "char list"
  | Id_Start
  | Id_Char

fun in_set :: "char_set \<Rightarrow> code_point \<Rightarrow> bool" where
  "in_set (In rs) c = list_ex (\<lambda>(a, b). code a \<le> c \<and> c \<le> code b) rs"
| "in_set (Not_In xs) c = (c \<noteq> 0 \<and> list_all (\<lambda>x. c \<noteq> code x) xs)"
| "in_set Id_Start c = identifier_start c"
| "in_set Id_Char c = identifier_char c"

datatype rexp =
    Zero
  | One
  | Chr char_set
  | Seq rexp rexp
  | Alt rexp rexp
  | Star rexp

inductive spells_rexp :: "rexp \<Rightarrow> code_point list \<Rightarrow> bool" where
  spells_One: "spells_rexp One []"
| spells_Chr: "in_set a c \<Longrightarrow> spells_rexp (Chr a) [c]"
| spells_Seq: "spells_rexp r u \<Longrightarrow> spells_rexp t v \<Longrightarrow> spells_rexp (Seq r t) (u @ v)"
| spells_Alt_left: "spells_rexp r u \<Longrightarrow> spells_rexp (Alt r t) u"
| spells_Alt_right: "spells_rexp t u \<Longrightarrow> spells_rexp (Alt r t) u"
| spells_Star_Nil: "spells_rexp (Star r) []"
| spells_Star_append: "spells_rexp r u \<Longrightarrow> spells_rexp (Star r) v \<Longrightarrow> spells_rexp (Star r) (u @ v)"

inductive_simps spells_simps [simp]:
  "spells_rexp Zero w"
  "spells_rexp One w"
  "spells_rexp (Chr a) w"
  "spells_rexp (Alt r t) w"

inductive_cases spells_SeqE: "spells_rexp (Seq r t) w"

section \<open>Derivatives\<close>

primrec nullable :: "rexp \<Rightarrow> bool" where
  "nullable Zero = False"
| "nullable One = True"
| "nullable (Chr a) = False"
| "nullable (Seq r t) = (nullable r \<and> nullable t)"
| "nullable (Alt r t) = (nullable r \<or> nullable t)"
| "nullable (Star r) = True"

lemma spells_Seq_Nil [simp]: "spells_rexp (Seq r t) [] \<longleftrightarrow> spells_rexp r [] \<and> spells_rexp t []"
  using spells_Seq[of r "[]" t "[]"] by (auto elim: spells_SeqE)

lemma nullable_iff: "nullable r \<longleftrightarrow> spells_rexp r []"
  by (induction r) (auto intro: spells_Star_Nil)

text \<open>
  Sequence and choice in a normal form: sequences to the right, without the empty word and the empty
  language; choices as a list to the right, no alternative that another is seen to include.
\<close>

fun seq :: "rexp \<Rightarrow> rexp \<Rightarrow> rexp" where
  "seq Zero t = Zero"
| "seq One t = t"
| "seq (Seq r r') t = Seq r (seq r' t)"
| "seq (Chr a) t = Seq (Chr a) t"
| "seq (Alt r r') t = Seq (Alt r r') t"
| "seq (Star r) t = Seq (Star r) t"

fun within :: "rexp \<Rightarrow> rexp \<Rightarrow> bool" where
  "within r (Alt t t') = (r = Alt t t' \<or> within r t \<or> within r t')"
| "within r (Seq (Star t) t') = (r = Seq (Star t) t' \<or> r = t')"
| "within r t = (r = t)"

definition add_choice :: "rexp \<Rightarrow> rexp \<Rightarrow> rexp" where
  "add_choice r t =
     (if t = Zero then r else if within r t then t else if within t r then r else Alt r t)"

fun alt :: "rexp \<Rightarrow> rexp \<Rightarrow> rexp" where
  "alt Zero t = t"
| "alt (Alt r r') t = alt r (alt r' t)"
| "alt One t = add_choice One t"
| "alt (Chr a) t = add_choice (Chr a) t"
| "alt (Seq r r') t = add_choice (Seq r r') t"
| "alt (Star r) t = add_choice (Star r) t"

lemma spells_Seq_iff: "spells_rexp (Seq r t) w \<longleftrightarrow> (\<exists>u v. w = u @ v \<and> spells_rexp r u \<and> spells_rexp t v)"
  by (blast intro: spells_Seq elim: spells_SeqE)

lemma spells_seq [simp]: "spells_rexp (seq r t) w \<longleftrightarrow> spells_rexp (Seq r t) w"
proof (induction r t arbitrary: w rule: seq.induct)
  case (3 r r' t)
  then show ?case
    by (simp add: spells_Seq_iff) (metis append_assoc)
qed (simp_all add: spells_Seq_iff)

lemma within_spells: "within r t \<Longrightarrow> spells_rexp r w \<Longrightarrow> spells_rexp t w"
proof (induction r t arbitrary: w rule: within.induct)
  case (2 r t t')
  then show ?case
    using spells_Seq[OF spells_Star_Nil[of t], of t' w] by auto
qed auto

lemma spells_add_choice: "spells_rexp (add_choice r t) w \<longleftrightarrow> spells_rexp r w \<or> spells_rexp t w"
  using within_spells[of r t w] within_spells[of t r w] by (auto simp: add_choice_def)

lemma spells_alt [simp]: "spells_rexp (alt r t) w \<longleftrightarrow> spells_rexp r w \<or> spells_rexp t w"
  by (induction r t rule: alt.induct) (auto simp: spells_add_choice)

text \<open>The functions \<open>grammar.js\<close> and its helpers build expressions with.\<close>

definition chr :: "char \<Rightarrow> rexp" where
  "chr x = Chr (In [(x, x)])"

definition either_case :: "char \<Rightarrow> rexp" where
  "either_case x = Chr (In [(x, x), (other_case x, other_case x)])"

definition opt :: "rexp \<Rightarrow> rexp" where
  "opt r = Alt r One"

fun sequence :: "rexp list \<Rightarrow> rexp" where
  "sequence [] = One"
| "sequence [r] = r"
| "sequence (r # rs) = seq r (sequence rs)"

fun choice :: "rexp list \<Rightarrow> rexp" where
  "choice [] = Zero"
| "choice [r] = r"
| "choice (r # rs) = Alt r (choice rs)"

definition lit :: "string \<Rightarrow> rexp" where
  "lit xs = sequence (map chr xs)"

definition any_case :: "string \<Rightarrow> rexp" where
  "any_case xs = sequence (map either_case xs)"

text \<open>
  How the words of an expression start: each first character, a set, with what is left after it.
\<close>

type_synonym heads = "(char_set \<times> rexp) list"

definition heads_then :: "heads \<Rightarrow> rexp \<Rightarrow> heads" where
  "heads_then hs t = map (\<lambda>(a, r). (a, seq r t)) hs"

primrec heads :: "rexp \<Rightarrow> heads" where
  "heads Zero = []"
| "heads One = []"
| "heads (Chr a) = [(a, One)]"
| "heads (Seq r t) = (if nullable r then heads_then (heads r) t @ heads t else heads_then (heads r) t)"
| "heads (Alt r t) = heads r @ heads t"
| "heads (Star r) = heads_then (heads r) (Star r)"

fun after :: "code_point \<Rightarrow> heads \<Rightarrow> rexp" where
  "after c [] = Zero"
| "after c ((a, r) # hs) = (if in_set a c then alt r (after c hs) else after c hs)"

definition deriv :: "code_point \<Rightarrow> rexp \<Rightarrow> rexp" where
  "deriv c r = after c (heads r)"

lemma spells_Star_Cons:
  "spells_rexp (Star r) (c # w) \<longleftrightarrow> (\<exists>u v. w = u @ v \<and> spells_rexp r (c # u) \<and> spells_rexp (Star r) v)"
  (is "_ \<longleftrightarrow> ?R")
proof
  have "x = Star r \<Longrightarrow> y = c # w \<Longrightarrow> ?R" if "spells_rexp x y" for x y
    using that
  proof (induction rule: spells_rexp.induct)
    case (spells_Star_append r' u v)
    then show ?case by (cases u) auto
  qed simp_all
  then show "spells_rexp (Star r) (c # w) \<Longrightarrow> ?R" by blast
  show "?R \<Longrightarrow> spells_rexp (Star r) (c # w)"
    using spells_Star_append[of r "c # _" _] by fastforce
qed

lemma spells_Seq_Cons:
  "spells_rexp (Seq r t) (c # w) \<longleftrightarrow>
     (\<exists>u v. w = u @ v \<and> spells_rexp r (c # u) \<and> spells_rexp t v) \<or>
     spells_rexp r [] \<and> spells_rexp t (c # w)"
  unfolding spells_Seq_iff by (auto simp: Cons_eq_append_conv)

definition starts_with :: "heads \<Rightarrow> code_point \<Rightarrow> code_point list \<Rightarrow> bool" where
  "starts_with hs c w \<longleftrightarrow> (\<exists>(a, r) \<in> set hs. in_set a c \<and> spells_rexp r w)"

lemma starts_with_simps [simp]:
  "\<not> starts_with [] c w"
  "starts_with ((a, r) # hs) c w \<longleftrightarrow> in_set a c \<and> spells_rexp r w \<or> starts_with hs c w"
  "starts_with (hs @ hs') c w \<longleftrightarrow> starts_with hs c w \<or> starts_with hs' c w"
  by (auto simp: starts_with_def)

lemma starts_with_then:
  "starts_with (heads_then hs t) c w \<longleftrightarrow>
     (\<exists>u v. w = u @ v \<and> starts_with hs c u \<and> spells_rexp t v)"
proof (induction hs)
  case (Cons h hs)
  obtain a r where "h = (a, r)" by fastforce
  with Cons show ?case
    by (auto simp: heads_then_def spells_Seq_iff)
qed (simp add: heads_then_def)

lemma spells_heads: "spells_rexp r (c # w) \<longleftrightarrow> starts_with (heads r) c w"
proof (induction r arbitrary: w)
  case (Seq r t)
  then show ?case
    by (simp add: spells_Seq_Cons starts_with_then nullable_iff)
next
  case (Star r)
  then show ?case
    by (simp add: spells_Star_Cons starts_with_then)
qed auto

lemma spells_after: "spells_rexp (after c hs) w \<longleftrightarrow> starts_with hs c w"
  by (induction c hs rule: after.induct) auto

lemma spells_deriv: "spells_rexp (deriv c r) w \<longleftrightarrow> spells_rexp r (c # w)"
  by (simp add: deriv_def spells_after spells_heads)

text \<open>The membership test that computes.\<close>

lemma spells_rexp_code [code]: "spells_rexp r w \<longleftrightarrow> nullable (fold deriv w r)"
  by (induction w arbitrary: r) (simp_all add: nullable_iff flip: spells_deriv)

section \<open>Several tokens at once\<close>

text \<open>
  The tokens a state can still become, each with what is left to read of it. Of two tokens with the
  same spelling, the first is taken.
\<close>

type_synonym token_rexps = "(TSSymbol \<times> rexp) list"

definition first_token :: "token_rexps \<Rightarrow> code_point list \<Rightarrow> TSSymbol option" where
  "first_token rs w = map_option fst (List.find (\<lambda>(y, r). spells_rexp r w) rs)"

fun cons_token :: "TSSymbol \<Rightarrow> rexp \<Rightarrow> token_rexps \<Rightarrow> token_rexps" where
  "cons_token y Zero rs = rs"
| "cons_token y One rs = (y, One) # rs"
| "cons_token y (Chr a) rs = (y, Chr a) # rs"
| "cons_token y (Seq r t) rs = (y, Seq r t) # rs"
| "cons_token y (Alt r t) rs = (y, Alt r t) # rs"
| "cons_token y (Star r) rs = (y, Star r) # rs"

fun derivs :: "code_point \<Rightarrow> token_rexps \<Rightarrow> token_rexps" where
  "derivs c [] = []"
| "derivs c ((y, r) # rs) = cons_token y (deriv c r) (derivs c rs)"

primrec choose_token :: "bool \<Rightarrow> TSSymbol \<Rightarrow> TSSymbol option \<Rightarrow> TSSymbol option" where
  "choose_token True y other = Some y"
| "choose_token False y other = other"

fun first_nullable :: "token_rexps \<Rightarrow> TSSymbol option" where
  "first_nullable [] = None"
| "first_nullable ((y, r) # rs) = choose_token (nullable r) y (first_nullable rs)"

lemma first_token_simps [simp]:
  "first_token [] w = None"
  "first_token ((y, r) # rs) w = (if spells_rexp r w then Some y else first_token rs w)"
  by (simp_all add: first_token_def)

lemma first_token_Nil: "first_token rs [] = first_nullable rs"
  by (induction rs rule: first_nullable.induct) (simp_all flip: nullable_iff)

lemma first_token_cons: "first_token (cons_token y r rs) w = first_token ((y, r) # rs) w"
  by (cases r) simp_all

lemma first_token_Cons: "first_token rs (c # w) = first_token (derivs c rs) w"
  by (induction rs rule: derivs.induct) (simp_all add: first_token_cons spells_deriv)

text \<open>The word is spelled by the expression taken, and by none before it in the list.\<close>

lemma first_token_iff:
  "first_token rs w = Some y \<longleftrightarrow>
     (\<exists>us r vs. rs = us @ (y, r) # vs \<and> spells_rexp r w \<and> (\<forall>(y', r') \<in> set us. \<not> spells_rexp r' w))"
  (is "_ \<longleftrightarrow> ?R rs")
proof
  show "first_token rs w = Some y \<Longrightarrow> ?R rs"
  proof (induction rs rule: first_nullable.induct)
    case (2 x r rs)
    show ?case
    proof (cases "spells_rexp r w")
      case True
      with "2.prems" show ?thesis by fastforce
    next
      case False
      with 2 obtain us t vs where "rs = us @ (y, t) # vs" "spells_rexp t w"
          "\<forall>(y', r') \<in> set us. \<not> spells_rexp r' w"
        by auto
      with False show ?thesis
        by (intro exI[of _ "(x, r) # us"] exI[of _ t] exI[of _ vs]) simp
    qed
  qed simp
  have "first_token (us @ (y, r) # vs) w = Some y"
    if "spells_rexp r w" "\<forall>(y', r') \<in> set us. \<not> spells_rexp r' w" for us r vs
    using that by (induction us) auto
  then show "?R rs \<Longrightarrow> first_token rs w = Some y" by blast
qed

section \<open>Automata that read expressions\<close>

text \<open>
  The contract between the table of a generated lexer and the expressions its states read: what is
  left after a character is what the next state reads, and a state accepts the first token of which
  nothing has to follow.
\<close>

locale expression_automaton =
  fixes table :: lex_table and states :: "TSStateId set" and left :: "TSStateId \<Rightarrow> token_rexps"
  assumes left_delta: "q \<in> states \<Longrightarrow> derivs c (left q) =
      (case delta table q c of None \<Rightarrow> [] | Some q' \<Rightarrow> left q')"
    and left_states: "q \<in> states \<Longrightarrow> delta table q c = Some q' \<Longrightarrow> q' \<in> states"
    and left_accepting: "q \<in> states \<Longrightarrow> accepting table q = first_nullable (left q)"
begin

lemma accepts_first_token:
  "q \<in> states \<Longrightarrow> accepts table q w y \<longleftrightarrow> first_token (left q) w = Some y"
proof (induction w arbitrary: q)
  case Nil
  then show ?case by (simp add: accepts_Nil left_accepting first_token_Nil)
next
  case (Cons c w)
  then show ?case
    using left_delta[of q c] left_states[of q c]
    by (cases "delta table q c") (simp_all add: accepts_Cons first_token_Cons)
qed

end

section \<open>The check of a table\<close>

text \<open>
  What is left in the state a jump goes to; a state that skips white space reads nothing with it.
\<close>

fun left_after :: "(TSStateId \<Rightarrow> token_rexps) \<Rightarrow> lex_goto option \<Rightarrow> token_rexps" where
  "left_after left None = []"
| "left_after left (Some (ADVANCE q)) = left q"
| "left_after left (Some (SKIP q)) = []"

definition reads_at ::
  "(TSStateId \<Rightarrow> token_rexps) \<Rightarrow> code_point \<Rightarrow> token_rexps \<Rightarrow> lex_case \<Rightarrow> bool" where
  "reads_at left c rs k \<longleftrightarrow> derivs c rs = left_after left (case_goto False c k)"

definition case_reads :: "(TSStateId \<Rightarrow> token_rexps) \<Rightarrow> token_rexps \<Rightarrow> lex_case \<Rightarrow> bool" where
  "case_reads left rs k \<longleftrightarrow> (\<forall>c. reads_at left c rs k) \<and> case_accepts k = first_nullable rs"

text \<open>
  A case with many branches is checked at each character it names, and once at any other. \<open>Q\<close> says
  which states are checked this way.
\<close>

lemma case_reads_at_chars:
  assumes "list_all (\<lambda>(q, k). if Q q
      then list_all (\<lambda>x. reads_at left (code x) (left q) k) xs \<and> case_accepts k = first_nullable (left q)
      else True) cases"
    and "\<And>c. list_all (\<lambda>x. c \<noteq> code x) xs \<Longrightarrow>
      list_all (\<lambda>(q, k). if Q q then reads_at left c (left q) k else True) cases"
    and "list_all (\<lambda>(q, k). if Q q then True else case_reads left (left q) k) cases"
  shows "list_all (\<lambda>(q, k). case_reads left (left q) k) cases"
proof -
  have "case_reads left (left q) k" if qk: "(q, k) \<in> set cases" for q k
  proof (cases "Q q")
    case True
    have "reads_at left c (left q) k" for c
    proof (cases "list_all (\<lambda>x. c \<noteq> code x) xs")
      case True
      from assms(2)[OF this] \<open>Q q\<close> qk show ?thesis
        by (auto simp: list_all_iff)
    next
      case False
      with assms(1) \<open>Q q\<close> qk show ?thesis
        by (fastforce simp: list_all_iff)
    qed
    with assms(1) True qk show ?thesis
      by (fastforce simp: case_reads_def list_all_iff)
  next
    case False
    with assms(3) qk show ?thesis
      by (fastforce simp: list_all_iff)
  qed
  then show ?thesis
    by (auto simp: list_all_iff)
qed

text \<open>
  Congruences that keep the simplifier out of the lists these functions run down: it takes them apart
  from the head and never goes over the rest.
\<close>

lemma reads_at_weak: "c = c' \<Longrightarrow> reads_at left c rs k = reads_at left c' rs k"
  by simp

lemma derivs_weak: "c = c' \<Longrightarrow> derivs c rs = derivs c' rs"
  by simp

lemma case_goto_weak: "c = c' \<Longrightarrow> case_goto e c k = case_goto e c' k"
  by simp

lemma advance_map_weak: "c = c' \<Longrightarrow> advance_map m c = advance_map m c'"
  by simp

lemmas read_weak =
  reads_at_weak derivs_weak case_goto_weak advance_map_weak list_all_weak

text \<open>The list of \<open>derivs\<close> is evaluated once, before it is taken apart.\<close>

definition derivs_of :: "code_point \<Rightarrow> token_rexps \<Rightarrow> token_rexps" where
  "derivs_of c rs = derivs c rs"

lemma reads_at_of: "reads_at left c rs k \<longleftrightarrow> derivs_of c rs = left_after left (case_goto False c k)"
  by (simp add: reads_at_def derivs_of_def)

lemma deriv_heads:
  "deriv c One = Zero"
  "deriv c (Chr a) = after c (heads (Chr a))"
  "deriv c (Seq r t) = after c (heads (Seq r t))"
  "deriv c (Alt r t) = after c (heads (Alt r t))"
  "deriv c (Star r) = after c (heads (Star r))"
  by (simp_all add: deriv_def)

context lexer_table begin

lemma automaton_of_cases:
  assumes "list_all (\<lambda>(q, k). case_reads left (left q) k) table"
  shows "expression_automaton table {q. q < n} left"
proof
  fix q c
  assume "q \<in> {q. q < n}"
  then obtain k where k: "map_of table q = Some k" "(q, k) \<in> set table"
    using lookup_Some map_of_SomeD by fastforce
  then have ok: "case_reads left (left q) k"
    using assms by (auto simp: list_all_iff)
  show "derivs c (left q) = (case delta table q c of None \<Rightarrow> [] | Some q' \<Rightarrow> left q')"
    using ok k(1)
    by (auto simp: case_reads_def reads_at_def delta_def state_goto_def split: option.splits lex_goto.splits)
  show "accepting table q = first_nullable (left q)"
    using ok k(1) by (simp add: accepting_def case_reads_def)
  show "delta table q c = Some q' \<Longrightarrow> q' \<in> {q. q < n}" for q'
    using advance_target[of q False c q']
    by (auto simp: delta_def split: option.splits lex_goto.splits)
qed

end

end
