(* ===== verification/Token_Language.thy ===== *)
theory Token_Language
  imports Token_Regexps
begin

text \<open>
  The tokens of \<open>ts_lex\<close> as \<open>src/crates/tree-sitter/grammar.js\<close> defines them, the tokens each lex state
  can return, and the proof that the automaton of \<open>ts_lex\<close> reads exactly these: \<open>tokens_left\<close> gives,
  for each of its 220 states, what is left to read of each token, and the check of
  \<open>expression_automaton\<close> compares it with the table at every state and character.
\<close>

section \<open>The tokens of the grammar\<close>

definition digit :: rexp where
  "digit = Chr (In [(CHR ''0'', CHR ''9'')])"

definition digit_or_underscore :: rexp where
  "digit_or_underscore = Chr (In [(CHR ''0'', CHR ''9''), (CHR ''_'', CHR ''_'')])"

definition digits :: rexp where
  "digits = sequence [digit, Star digit_or_underscore]"

definition hex_digit :: rexp where
  "hex_digit = Chr (In [(CHR ''0'', CHR ''9''), (CHR ''a'', CHR ''f''), (CHR ''A'', CHR ''F'')])"

definition word_char :: rexp where
  "word_char =
     Chr (In [(CHR ''0'', CHR ''9''), (CHR ''a'', CHR ''z''), (CHR ''A'', CHR ''Z''), (CHR ''_'', CHR ''_'')])"

definition sign :: rexp where
  "sign = choice [lit ''+'', lit ''-'']"

definition exponent :: rexp where
  "exponent = sequence
     [Chr (In [(CHR ''e'', CHR ''e''), (CHR ''E'', CHR ''E'')]),
      opt (Chr (In [(CHR ''-'', CHR ''-''), (CHR ''+'', CHR ''+'')])), digits]"

definition real :: rexp where
  "real = choice [sequence [digits, lit ''.'', digits, opt exponent], sequence [digits, exponent]]"

definition based :: "string \<Rightarrow> (char \<times> char) list \<Rightarrow> (char \<times> char) list \<Rightarrow> rexp" where
  "based prefix first_digits other_digits =
     sequence [lit prefix, opt (lit ''_''), Chr (In first_digits), Star (Chr (In other_digits))]"

text \<open>The values of durations, times of day and dates: words joined by one of some characters.\<close>

definition part_after :: "string \<Rightarrow> rexp" where
  "part_after separators =
     sequence [Chr (In (map (\<lambda>x. (x, x)) separators)), digit, Star word_char]"

definition fraction :: rexp where "fraction = part_after ''.''"
definition clock_part :: rexp where "clock_part = part_after ''.:''"
definition date_part :: rexp where "date_part = part_after ''.:-''"

definition literal_prefix :: "string list \<Rightarrow> rexp" where
  "literal_prefix ws = sequence [choice (map any_case ws), lit ''#'']"

text \<open>One character of a string literal, or an escape.\<close>

definition string_escape :: rexp where
  "string_escape = sequence [lit ''$'',
     Chr (In (map (\<lambda>x. (x, x)) ''LNPRTlnprt''))]"

definition s_byte_char :: rexp where
  "s_byte_char = choice
     [Chr (Not_In [CHR 0x27, CHR 0x0A, CHR 0x0D, CHR ''$'']),
      sequence [lit ''$'', lit [CHR 0x27]], lit [CHR 0x22], lit ''$$'', string_escape,
      sequence [lit ''$'', hex_digit, hex_digit]]"

definition d_byte_char :: rexp where
  "d_byte_char = choice
     [Chr (Not_In [CHR 0x22, CHR 0x0A, CHR 0x0D, CHR ''$'']),
      lit [CHR 0x27], sequence [lit ''$'', lit [CHR 0x22]], lit ''$$'', string_escape,
      sequence [lit ''$'', hex_digit, Star hex_digit]]"

text \<open>
  Every token \<open>ts_lex\<close> can return, with its expression in \<open>grammar.js\<close>. Where two have the same
  spelling, a string of the grammar comes before a pattern.
\<close>

definition punctuation_tokens_1 :: token_rexps where
  "punctuation_tokens_1 =
    [(anon_sym_0, lit ''0''), (anon_sym_1, lit ''1''), (anon_sym_AMP, lit ''&''),
     (anon_sym_CARET, lit ''^''), (anon_sym_COLON, lit '':''), (anon_sym_COLON_EQ, lit '':=''),
     (anon_sym_COMMA, lit '',''), (anon_sym_DASH, lit ''-''), (anon_sym_DOT, lit ''.''),
     (anon_sym_DOT_DOT, lit ''..''), (anon_sym_DOT_DOT_DOT, lit ''...''), (anon_sym_EQ, lit ''=''),
     (anon_sym_EQ_GT, lit ''=>''), (anon_sym_GT, lit ''>''), (anon_sym_GT_EQ, lit ''>=''),
     (anon_sym_I, lit ''I''), (anon_sym_M, lit ''M''), (anon_sym_Q, lit ''Q'')]"

definition punctuation_tokens_2 :: token_rexps where
  "punctuation_tokens_2 =
    [(anon_sym_LBRACE, lit ''{''), (anon_sym_LBRACK, lit ''[''), (anon_sym_LPAREN, lit ''(''),
     (anon_sym_LPAREN_RPAREN, lit ''()''), (anon_sym_LT, lit ''<''), (anon_sym_LT_EQ, lit ''<=''),
     (anon_sym_LT_GT, lit ''<>''), (anon_sym_PERCENT, lit ''%''), (anon_sym_PIPE, lit ''|''),
     (anon_sym_PLUS, lit ''+''), (anon_sym_POUND, lit ''#''), (anon_sym_RBRACE, lit ''}''),
     (anon_sym_RBRACK, lit '']''), (anon_sym_RPAREN, lit '')''), (anon_sym_SEMI, lit '';''),
     (anon_sym_SLASH, lit ''/''), (anon_sym_STAR, lit ''*''), (anon_sym_STAR_STAR, lit ''**'')]"

definition comment_tokens :: token_rexps where
  "comment_tokens =
    [(sym_line_comment, sequence [lit ''//'', Star (Chr (Not_In [CHR 0x0A]))]),
     (sym_pragma_string,
       sequence [lit [CHR 0x27], Star (Chr (Not_In [CHR 0x27])), lit [CHR 0x27]]),
     (aux_sym_test_pragma_token1, lit ''{test}''),
     (aux_sym_once_pragma_token1, lit ''{once}''),
     (aux_sym_must_call_pragma_token1, lit ''{must_call}''),
     (aux_sym_export_pragma_token1, lit ''{export}'')]"

definition number_tokens :: token_rexps where
  "number_tokens =
    [(sym_unsigned_int, digits),
     (sym__explicit_signed_int, sequence [sign, digits]),
     (sym_binary_int, based ''2#'' [(CHR ''0'', CHR ''1'')] [(CHR ''_'', CHR ''_''), (CHR ''0'', CHR ''1'')]),
     (sym_octal_int, based ''8#'' [(CHR ''0'', CHR ''7'')] [(CHR ''_'', CHR ''_''), (CHR ''0'', CHR ''7'')]),
     (sym_hex_int, based ''16#''
       [(CHR ''0'', CHR ''9''), (CHR ''a'', CHR ''f''), (CHR ''A'', CHR ''F'')]
       [(CHR ''_'', CHR ''_''), (CHR ''0'', CHR ''9''), (CHR ''a'', CHR ''f''), (CHR ''A'', CHR ''F'')]),
     (sym__explicit_signed_real, sequence [sign, real]),
     (sym_real_value, real)]"

definition literal_tokens :: token_rexps where
  "literal_tokens =
    [(aux_sym_bool_literal_with_string_token1, any_case ''BOOL#''),
     (sym_s_byte_char_str, sequence [lit [CHR 0x27], Star s_byte_char, lit [CHR 0x27]]),
     (sym_d_byte_char_str, sequence [lit [CHR 0x22], Star d_byte_char, lit [CHR 0x22]]),
     (aux_sym_time_token1, literal_prefix [''TIME'', ''T'']),
     (aux_sym_ltime_token1, literal_prefix [''LTIME'', ''LT'']),
     (aux_sym_tod_token1, literal_prefix [''TIME_OF_DAY'', ''TOD'']),
     (aux_sym_ltod_token1, literal_prefix [''LTIME_OF_DAY'', ''LTOD'']),
     (aux_sym_short_date_token1, literal_prefix [''DATE'', ''D'']),
     (aux_sym_long_date_token1, literal_prefix [''LDATE'', ''LD'']),
     (aux_sym_short_date_and_time_token1, literal_prefix [''DATE_AND_TIME'', ''DT'']),
     (aux_sym_long_date_and_time_token1, literal_prefix [''LDATE_AND_TIME'', ''LDT''])]"

definition value_tokens :: token_rexps where
  "value_tokens =
    [(sym_time_value, sequence [word_char, Star word_char, Star fraction]),
     (sym_daytime, sequence [word_char, Star word_char, Star clock_part]),
     (aux_sym_date_literal_token1, sequence [word_char, Star word_char, Star date_part]),
     (sym_adress_identifier,
       Star (Chr (In [(CHR ''A'', CHR ''Z''), (CHR ''a'', CHR ''z'')]))),
     (sym_identifier, sequence [Chr Id_Start, Star (Chr Id_Char)])]"

definition token_rexps :: token_rexps where
  "token_rexps =
     punctuation_tokens_1 @ punctuation_tokens_2 @ comment_tokens @ number_tokens @ literal_tokens @
     value_tokens"

lemmas token_rexps_parts =
  punctuation_tokens_1_def punctuation_tokens_2_def comment_tokens_def number_tokens_def
  literal_tokens_def value_tokens_def

definition token_rexp :: "TSSymbol \<Rightarrow> rexp" where
  "token_rexp y = (case map_of token_rexps y of None \<Rightarrow> Zero | Some r \<Rightarrow> r)"

text \<open>
  The lex states that \<open>ts_lex_modes\<close> uses, with the tokens each can return: those the parser expects
  in the states of that mode.
\<close>

definition lex_state_tokens :: "(TSStateId \<times> TSSymbol list) list" where
  "lex_state_tokens =
    [(0, [anon_sym_0, anon_sym_1, anon_sym_AMP, anon_sym_CARET, anon_sym_COLON, anon_sym_COLON_EQ,
       anon_sym_COMMA, anon_sym_DASH, anon_sym_DOT, anon_sym_DOT_DOT, anon_sym_EQ, anon_sym_EQ_GT,
       anon_sym_GT, anon_sym_GT_EQ, anon_sym_I, anon_sym_M, anon_sym_Q, anon_sym_LBRACE,
       anon_sym_LBRACK, anon_sym_LPAREN, anon_sym_LPAREN_RPAREN, anon_sym_LT, anon_sym_LT_EQ,
       anon_sym_LT_GT, anon_sym_PERCENT, anon_sym_PIPE, anon_sym_PLUS, anon_sym_POUND,
       anon_sym_RBRACE, anon_sym_RBRACK, anon_sym_RPAREN, anon_sym_SEMI, anon_sym_SLASH,
       anon_sym_STAR, anon_sym_STAR_STAR, sym_line_comment, sym_pragma_string,
       aux_sym_test_pragma_token1, aux_sym_once_pragma_token1, aux_sym_must_call_pragma_token1,
       aux_sym_export_pragma_token1, sym__explicit_signed_int, sym_binary_int, sym_octal_int,
       sym__explicit_signed_real, aux_sym_bool_literal_with_string_token1, sym_d_byte_char_str,
       aux_sym_time_token1, sym_identifier]),
     (1, [anon_sym_AMP, anon_sym_CARET, anon_sym_DASH, anon_sym_DOT, anon_sym_DOT_DOT_DOT,
       anon_sym_EQ, anon_sym_GT, anon_sym_GT_EQ, anon_sym_LBRACE, anon_sym_LBRACK,
       anon_sym_LPAREN, anon_sym_LPAREN_RPAREN, anon_sym_LT, anon_sym_LT_EQ, anon_sym_LT_GT,
       anon_sym_PERCENT, anon_sym_PLUS, anon_sym_POUND, anon_sym_SEMI, anon_sym_SLASH,
       anon_sym_STAR, anon_sym_STAR_STAR, sym_line_comment, aux_sym_test_pragma_token1,
       aux_sym_once_pragma_token1, aux_sym_must_call_pragma_token1, aux_sym_export_pragma_token1,
       sym_unsigned_int, sym__explicit_signed_int, sym_binary_int, sym_octal_int, sym_hex_int,
       sym__explicit_signed_real, sym_real_value, aux_sym_bool_literal_with_string_token1,
       sym_s_byte_char_str, sym_d_byte_char_str, aux_sym_time_token1, aux_sym_ltime_token1,
       aux_sym_tod_token1, aux_sym_ltod_token1, aux_sym_short_date_token1,
       aux_sym_long_date_token1, aux_sym_short_date_and_time_token1,
       aux_sym_long_date_and_time_token1, sym_identifier]),
     (2, [anon_sym_AMP, anon_sym_CARET, anon_sym_DASH, anon_sym_DOT, anon_sym_DOT_DOT_DOT,
       anon_sym_EQ, anon_sym_GT, anon_sym_GT_EQ, anon_sym_LBRACE, anon_sym_LBRACK,
       anon_sym_LPAREN, anon_sym_LT, anon_sym_LT_EQ, anon_sym_LT_GT, anon_sym_PERCENT,
       anon_sym_PLUS, anon_sym_POUND, anon_sym_SEMI, anon_sym_SLASH, anon_sym_STAR,
       anon_sym_STAR_STAR, sym_line_comment, aux_sym_test_pragma_token1,
       aux_sym_once_pragma_token1, aux_sym_must_call_pragma_token1, aux_sym_export_pragma_token1,
       sym_unsigned_int, sym__explicit_signed_int, sym_binary_int, sym_octal_int, sym_hex_int,
       sym__explicit_signed_real, sym_real_value, aux_sym_bool_literal_with_string_token1,
       sym_s_byte_char_str, sym_d_byte_char_str, aux_sym_time_token1, aux_sym_ltime_token1,
       aux_sym_tod_token1, aux_sym_ltod_token1, aux_sym_short_date_token1,
       aux_sym_long_date_token1, aux_sym_short_date_and_time_token1,
       aux_sym_long_date_and_time_token1, sym_identifier]),
     (3, [anon_sym_CARET, anon_sym_COLON, anon_sym_COLON_EQ, anon_sym_DASH, anon_sym_DOT,
       anon_sym_DOT_DOT_DOT, anon_sym_EQ, anon_sym_EQ_GT, anon_sym_LBRACE, anon_sym_LBRACK,
       anon_sym_LPAREN, anon_sym_LPAREN_RPAREN, anon_sym_PERCENT, anon_sym_PLUS, anon_sym_SEMI,
       sym_line_comment, aux_sym_test_pragma_token1, aux_sym_once_pragma_token1,
       aux_sym_must_call_pragma_token1, aux_sym_export_pragma_token1, sym_unsigned_int,
       sym__explicit_signed_int, sym_binary_int, sym_octal_int, sym_hex_int,
       sym__explicit_signed_real, sym_real_value, aux_sym_bool_literal_with_string_token1,
       sym_s_byte_char_str, sym_d_byte_char_str, aux_sym_time_token1, aux_sym_ltime_token1,
       aux_sym_tod_token1, aux_sym_ltod_token1, aux_sym_short_date_token1,
       aux_sym_long_date_token1, aux_sym_short_date_and_time_token1,
       aux_sym_long_date_and_time_token1, sym_identifier]),
     (4, [anon_sym_CARET, anon_sym_COLON, anon_sym_COLON_EQ, anon_sym_DASH, anon_sym_DOT,
       anon_sym_DOT_DOT_DOT, anon_sym_EQ, anon_sym_EQ_GT, anon_sym_LBRACE, anon_sym_LBRACK,
       anon_sym_LPAREN, anon_sym_PERCENT, anon_sym_PLUS, anon_sym_RBRACK, anon_sym_RPAREN,
       anon_sym_SEMI, anon_sym_STAR, sym_line_comment, aux_sym_test_pragma_token1,
       aux_sym_once_pragma_token1, aux_sym_must_call_pragma_token1, aux_sym_export_pragma_token1,
       sym_unsigned_int, sym__explicit_signed_int, sym_binary_int, sym_octal_int, sym_hex_int,
       sym__explicit_signed_real, sym_real_value, aux_sym_bool_literal_with_string_token1,
       sym_s_byte_char_str, sym_d_byte_char_str, aux_sym_time_token1, aux_sym_ltime_token1,
       aux_sym_tod_token1, aux_sym_ltod_token1, aux_sym_short_date_token1,
       aux_sym_long_date_token1, aux_sym_short_date_and_time_token1,
       aux_sym_long_date_and_time_token1, sym_identifier]),
     (7, [anon_sym_0, anon_sym_1, anon_sym_AMP, anon_sym_CARET, anon_sym_COLON, anon_sym_COLON_EQ,
       anon_sym_COMMA, anon_sym_DASH, anon_sym_DOT, anon_sym_DOT_DOT, anon_sym_EQ, anon_sym_GT,
       anon_sym_GT_EQ, anon_sym_LBRACE, anon_sym_LBRACK, anon_sym_LPAREN, anon_sym_LPAREN_RPAREN,
       anon_sym_LT, anon_sym_LT_EQ, anon_sym_LT_GT, anon_sym_PERCENT, anon_sym_PLUS,
       anon_sym_POUND, anon_sym_RBRACK, anon_sym_RPAREN, anon_sym_SEMI, anon_sym_SLASH,
       anon_sym_STAR, anon_sym_STAR_STAR, sym_line_comment, sym_pragma_string,
       aux_sym_test_pragma_token1, aux_sym_once_pragma_token1, aux_sym_must_call_pragma_token1,
       aux_sym_export_pragma_token1, sym_identifier]),
     (8, [anon_sym_AMP, anon_sym_CARET, anon_sym_COLON, anon_sym_COLON_EQ, anon_sym_COMMA,
       anon_sym_DASH, anon_sym_DOT, anon_sym_DOT_DOT_DOT, anon_sym_EQ, anon_sym_EQ_GT,
       anon_sym_GT, anon_sym_GT_EQ, anon_sym_LBRACE, anon_sym_LBRACK, anon_sym_LPAREN,
       anon_sym_LT, anon_sym_LT_EQ, anon_sym_LT_GT, anon_sym_PERCENT, anon_sym_PLUS,
       anon_sym_POUND, anon_sym_RPAREN, anon_sym_SEMI, anon_sym_SLASH, anon_sym_STAR,
       anon_sym_STAR_STAR, sym_line_comment, aux_sym_test_pragma_token1,
       aux_sym_once_pragma_token1, aux_sym_must_call_pragma_token1, aux_sym_export_pragma_token1,
       sym_identifier]),
     (12, [anon_sym_CARET, anon_sym_COLON, anon_sym_COLON_EQ, anon_sym_DOT, anon_sym_EQ,
       anon_sym_EQ_GT, anon_sym_LBRACE, anon_sym_LBRACK, anon_sym_LPAREN, anon_sym_LPAREN_RPAREN,
       anon_sym_PERCENT, anon_sym_RPAREN, anon_sym_SEMI, anon_sym_STAR, sym_line_comment,
       aux_sym_test_pragma_token1, aux_sym_once_pragma_token1, aux_sym_must_call_pragma_token1,
       aux_sym_export_pragma_token1, sym_unsigned_int, sym__explicit_signed_int, sym_binary_int,
       sym_octal_int, sym_hex_int, sym_identifier]),
     (13, [anon_sym_PERCENT, sym_line_comment, aux_sym_time_token1, aux_sym_ltime_token1,
       sym_identifier]),
     (15, [anon_sym_DASH, anon_sym_PLUS, sym_line_comment, sym_time_value]),
     (18, [anon_sym_I, anon_sym_M, anon_sym_Q, sym_line_comment]),
     (19, [sym_line_comment, aux_sym_date_literal_token1]),
     (20, [sym_line_comment, sym_daytime]),
     (63, [anon_sym_AMP, anon_sym_CARET, anon_sym_COLON, anon_sym_COLON_EQ, anon_sym_COMMA,
       anon_sym_DASH, anon_sym_DOT, anon_sym_DOT_DOT, anon_sym_EQ, anon_sym_GT, anon_sym_GT_EQ,
       anon_sym_LBRACE, anon_sym_LBRACK, anon_sym_LPAREN, anon_sym_LT, anon_sym_LT_EQ,
       anon_sym_LT_GT, anon_sym_PERCENT, anon_sym_PIPE, anon_sym_PLUS, anon_sym_POUND,
       anon_sym_RBRACE, anon_sym_RBRACK, anon_sym_RPAREN, anon_sym_SEMI, anon_sym_SLASH,
       anon_sym_STAR, anon_sym_STAR_STAR, sym_line_comment, aux_sym_test_pragma_token1,
       aux_sym_once_pragma_token1, aux_sym_must_call_pragma_token1, aux_sym_export_pragma_token1,
       sym_unsigned_int, sym_hex_int, sym_s_byte_char_str, sym_d_byte_char_str, sym_identifier]),
     (218, [anon_sym_I, anon_sym_M, anon_sym_Q, sym_adress_identifier]),
     (219, [sym_adress_identifier])]"

section \<open>What is left to read in every state\<close>

definition tokens_left_1 :: "(TSStateId \<times> token_rexps) list" where
  "tokens_left_1 =
    [(5, [(sym_d_byte_char_str, Seq (Star hex_digit) (Seq (Star d_byte_char) (chr (CHR 0x22))))]),
     (6, [(sym_d_byte_char_str, Seq (Star d_byte_char) (chr (CHR 0x22)))]),
     (9, [(sym_binary_int, Seq (lit ''#'') (Seq (Alt (lit ''_'') One) (Seq (Chr (In [(CHR ''0'',
       CHR ''1'')])) (Star (Chr (In [(CHR ''_'', CHR ''_''), (CHR ''0'', CHR ''1'')]))))))]),
     (10, [(sym_octal_int, Seq (lit ''#'') (Seq (Alt (lit ''_'') One) (Seq (Chr (In [(CHR ''0'',
       CHR ''7'')])) (Star (Chr (In [(CHR ''_'', CHR ''_''), (CHR ''0'', CHR ''7'')]))))))]),
     (11, [(sym_s_byte_char_str, Seq (Star s_byte_char) (chr (CHR 0x27)))]),
     (14, [(sym_pragma_string, Seq (Star (Chr (Not_In [CHR 0x27]))) (chr (CHR 0x27)))]),
     (16, [(anon_sym_DOT_DOT_DOT, lit ''.'')]),
     (17, [(sym_line_comment, Seq (lit ''/'') (Star (Chr (Not_In [CHR 0x0A]))))]),
     (21, [(sym_binary_int, Seq (Alt (lit ''_'') One) (Seq (Chr (In [(CHR ''0'', CHR ''1'')]))
       (Star (Chr (In [(CHR ''_'', CHR ''_''), (CHR ''0'', CHR ''1'')])))))]),
     (22, [(sym_octal_int, Seq (Alt (lit ''_'') One) (Seq (Chr (In [(CHR ''0'', CHR ''7'')]))
       (Star (Chr (In [(CHR ''_'', CHR ''_''), (CHR ''0'', CHR ''7'')])))))]),
     (23, [(aux_sym_must_call_pragma_token1, lit ''_call}'')]),
     (24, [(sym_hex_int, Seq (Alt (lit ''_'') One) (Seq hex_digit (Star (Chr (In [(CHR ''_'', CHR
       ''_''), (CHR ''0'', CHR ''9''), (CHR ''a'', CHR ''f''), (CHR ''A'', CHR ''F'')])))))]),
     (25, [(aux_sym_must_call_pragma_token1, lit ''all}'')]),
     (26, [(aux_sym_must_call_pragma_token1, lit ''call}'')])]"

definition tokens_left_2 :: "(TSStateId \<times> token_rexps) list" where
  "tokens_left_2 =
    [(27, [(aux_sym_once_pragma_token1, lit ''ce}'')]),
     (28, [(aux_sym_once_pragma_token1, lit ''e}'')]),
     (29, [(aux_sym_test_pragma_token1, lit ''est}'')]),
     (30, [(aux_sym_must_call_pragma_token1, lit ''ll}'')]),
     (31, [(aux_sym_must_call_pragma_token1, lit ''l}'')]),
     (32, [(aux_sym_once_pragma_token1, lit ''nce}'')]),
     (33, [(aux_sym_export_pragma_token1, lit ''ort}'')]),
     (34, [(aux_sym_export_pragma_token1, lit ''port}'')]),
     (35, [(aux_sym_export_pragma_token1, lit ''rt}'')]),
     (36, [(aux_sym_must_call_pragma_token1, lit ''st_call}'')]),
     (37, [(aux_sym_test_pragma_token1, lit ''st}'')]),
     (38, [(aux_sym_must_call_pragma_token1, lit ''t_call}'')]),
     (39, [(aux_sym_test_pragma_token1, lit ''t}'')]),
     (40, [(aux_sym_export_pragma_token1, lit ''t}'')])]"

definition tokens_left_3 :: "(TSStateId \<times> token_rexps) list" where
  "tokens_left_3 =
    [(41, [(aux_sym_must_call_pragma_token1, lit ''ust_call}'')]),
     (42, [(aux_sym_export_pragma_token1, lit ''xport}'')]),
     (43, [(aux_sym_once_pragma_token1, lit ''}'')]),
     (44, [(aux_sym_test_pragma_token1, lit ''}'')]),
     (45, [(aux_sym_export_pragma_token1, lit ''}'')]),
     (46, [(aux_sym_must_call_pragma_token1, lit ''}'')]),
     (47, [(sym__explicit_signed_real, Seq (Alt (Chr (In [(CHR ''-'', CHR ''-''), (CHR ''+'', CHR
       ''+'')])) One) digits)]),
     (48, [(sym_real_value, Seq (Alt (Chr (In [(CHR ''-'', CHR ''-''), (CHR ''+'', CHR ''+'')]))
       One) digits)]),
     (49, [(sym_binary_int, Seq (Chr (In [(CHR ''0'', CHR ''1'')])) (Star (Chr (In [(CHR ''_'',
       CHR ''_''), (CHR ''0'', CHR ''1'')]))))]),
     (50, [(sym_octal_int, Seq (Chr (In [(CHR ''0'', CHR ''7'')])) (Star (Chr (In [(CHR ''_'', CHR
       ''_''), (CHR ''0'', CHR ''7'')]))))]),
     (51, [(sym__explicit_signed_real, Seq digit (Seq (Star digit_or_underscore) (Alt exponent
       One)))]),
     (52, [(sym__explicit_signed_real, digits)]),
     (53, [(sym_real_value, Seq digit (Seq (Star digit_or_underscore) (Alt exponent One)))]),
     (54, [(sym_real_value, digits)])]"

definition tokens_left_4 :: "(TSStateId \<times> token_rexps) list" where
  "tokens_left_4 =
    [(55, [(sym__explicit_signed_int, digits)]),
     (56, [(sym_time_value, Seq digit (Seq (Star word_char) (Star fraction)))]),
     (57, [(aux_sym_date_literal_token1, Seq digit (Seq (Star word_char) (Star date_part)))]),
     (58, [(sym_daytime, Seq digit (Seq (Star word_char) (Star clock_part)))]),
     (59, [(sym_d_byte_char_str, Alt (Seq (chr (CHR 0x22)) (Seq (Star d_byte_char) (chr (CHR
       0x22)))) (Alt (Seq (lit ''$'') (Seq (Star d_byte_char) (chr (CHR 0x22)))) (Alt (Seq (Chr
       (In [(CHR ''L'', CHR ''L''), (CHR ''N'', CHR ''N''), (CHR ''P'', CHR ''P''), (CHR ''R'',
       CHR ''R''), (CHR ''T'', CHR ''T''), (CHR ''l'', CHR ''l''), (CHR ''n'', CHR ''n''), (CHR
       ''p'', CHR ''p''), (CHR ''r'', CHR ''r''), (CHR ''t'', CHR ''t'')])) (Seq (Star
       d_byte_char) (chr (CHR 0x22)))) (Seq hex_digit (Seq (Star hex_digit) (Seq (Star
       d_byte_char) (chr (CHR 0x22))))))))]),
     (60, [(sym_s_byte_char_str, Alt (Seq (chr (CHR 0x27)) (Seq (Star s_byte_char) (chr (CHR
       0x27)))) (Alt (Seq (lit ''$'') (Seq (Star s_byte_char) (chr (CHR 0x27)))) (Alt (Seq (Chr
       (In [(CHR ''L'', CHR ''L''), (CHR ''N'', CHR ''N''), (CHR ''P'', CHR ''P''), (CHR ''R'',
       CHR ''R''), (CHR ''T'', CHR ''T''), (CHR ''l'', CHR ''l''), (CHR ''n'', CHR ''n''), (CHR
       ''p'', CHR ''p''), (CHR ''r'', CHR ''r''), (CHR ''t'', CHR ''t'')])) (Seq (Star
       s_byte_char) (chr (CHR 0x27)))) (Seq hex_digit (Seq hex_digit (Seq (Star s_byte_char) (chr
       (CHR 0x27))))))))]),
     (61, [(sym_s_byte_char_str, Seq hex_digit (Seq (Star s_byte_char) (chr (CHR 0x27))))]),
     (62, [(sym_hex_int, Seq hex_digit (Star (Chr (In [(CHR ''_'', CHR ''_''), (CHR ''0'', CHR
       ''9''), (CHR ''a'', CHR ''f''), (CHR ''A'', CHR ''F'')]))))]),
     (64, [(ts_builtin_sym_end, One)]),
     (65, [(anon_sym_COLON_EQ, One)]),
     (66, [(anon_sym_EQ, One)]),
     (67, [(anon_sym_EQ, One), (anon_sym_EQ_GT, lit ''>'')]),
     (68, [(anon_sym_COLON, One), (anon_sym_COLON_EQ, lit ''='')]),
     (69, [(anon_sym_EQ_GT, One)])]"

definition tokens_left_5 :: "(TSStateId \<times> token_rexps) list" where
  "tokens_left_5 =
    [(70, [(anon_sym_COMMA, One)]),
     (71, [(sym_line_comment, Star (Chr (Not_In [CHR 0x0A])))]),
     (72, [(anon_sym_LBRACE, One), (aux_sym_test_pragma_token1, lit ''test}''),
       (aux_sym_once_pragma_token1, lit ''once}''), (aux_sym_must_call_pragma_token1, lit
       ''must_call}''), (aux_sym_export_pragma_token1, lit ''export}'')]),
     (73, [(anon_sym_RBRACE, One)]),
     (74, [(anon_sym_LPAREN, One)]),
     (75, [(anon_sym_LPAREN, One), (anon_sym_LPAREN_RPAREN, lit '')'')]),
     (76, [(anon_sym_RPAREN, One)]),
     (77, [(sym_pragma_string, One)]),
     (78, [(aux_sym_test_pragma_token1, One)]),
     (79, [(aux_sym_once_pragma_token1, One)]),
     (80, [(aux_sym_must_call_pragma_token1, One)]),
     (81, [(aux_sym_export_pragma_token1, One)]),
     (82, [(anon_sym_POUND, One)]),
     (83, [(sym_unsigned_int, Star digit_or_underscore), (sym_binary_int, Seq (lit ''#'') (Seq
       (Alt (lit ''_'') One) (Seq (Chr (In [(CHR ''0'', CHR ''1'')])) (Star (Chr (In [(CHR ''_'',
       CHR ''_''), (CHR ''0'', CHR ''1'')])))))), (sym_real_value, Alt (Seq (Star
       digit_or_underscore) (Seq (lit ''.'') (Seq digit (Seq (Star digit_or_underscore) (Alt
       exponent One))))) (Seq (Star digit_or_underscore) exponent))])]"

definition tokens_left_6 :: "(TSStateId \<times> token_rexps) list" where
  "tokens_left_6 =
    [(84, [(sym_unsigned_int, Star digit_or_underscore), (sym_binary_int, Seq (lit ''#'') (Seq
       (Alt (lit ''_'') One) (Seq (Chr (In [(CHR ''0'', CHR ''1'')])) (Star (Chr (In [(CHR ''_'',
       CHR ''_''), (CHR ''0'', CHR ''1'')]))))))]),
     (85, [(sym_unsigned_int, Star digit_or_underscore), (sym_octal_int, Seq (lit ''#'') (Seq (Alt
       (lit ''_'') One) (Seq (Chr (In [(CHR ''0'', CHR ''7'')])) (Star (Chr (In [(CHR ''_'', CHR
       ''_''), (CHR ''0'', CHR ''7'')])))))), (sym_real_value, Alt (Seq (Star digit_or_underscore)
       (Seq (lit ''.'') (Seq digit (Seq (Star digit_or_underscore) (Alt exponent One))))) (Seq
       (Star digit_or_underscore) exponent))]),
     (86, [(sym_unsigned_int, Star digit_or_underscore), (sym_octal_int, Seq (lit ''#'') (Seq (Alt
       (lit ''_'') One) (Seq (Chr (In [(CHR ''0'', CHR ''7'')])) (Star (Chr (In [(CHR ''_'', CHR
       ''_''), (CHR ''0'', CHR ''7'')]))))))]),
     (87, [(sym_unsigned_int, Star digit_or_underscore), (sym_hex_int, Seq (lit ''#'') (Seq (Alt
       (lit ''_'') One) (Seq hex_digit (Star (Chr (In [(CHR ''_'', CHR ''_''), (CHR ''0'', CHR
       ''9''), (CHR ''a'', CHR ''f''), (CHR ''A'', CHR ''F'')])))))), (sym_real_value, Alt (Seq
       (Star digit_or_underscore) (Seq (lit ''.'') (Seq digit (Seq (Star digit_or_underscore) (Alt
       exponent One))))) (Seq (Star digit_or_underscore) exponent))]),
     (88, [(sym_unsigned_int, Star digit_or_underscore), (sym_hex_int, Seq (lit ''#'') (Seq (Alt
       (lit ''_'') One) (Seq hex_digit (Star (Chr (In [(CHR ''_'', CHR ''_''), (CHR ''0'', CHR
       ''9''), (CHR ''a'', CHR ''f''), (CHR ''A'', CHR ''F'')]))))))]),
     (89, [(sym_unsigned_int, Star digit_or_underscore), (sym_hex_int, Seq (lit ''6'') (Seq (lit
       ''#'') (Seq (Alt (lit ''_'') One) (Seq hex_digit (Star (Chr (In [(CHR ''_'', CHR ''_''),
       (CHR ''0'', CHR ''9''), (CHR ''a'', CHR ''f''), (CHR ''A'', CHR ''F'')]))))))),
       (sym_real_value, Alt (Seq (Star digit_or_underscore) (Seq (lit ''.'') (Seq digit (Seq (Star
       digit_or_underscore) (Alt exponent One))))) (Seq (Star digit_or_underscore) exponent))]),
     (90, [(sym_unsigned_int, Star digit_or_underscore), (sym_real_value, Alt (Seq (Star
       digit_or_underscore) (Seq (lit ''.'') (Seq digit (Seq (Star digit_or_underscore) (Alt
       exponent One))))) (Seq (Star digit_or_underscore) exponent))]),
     (91, [(sym_unsigned_int, Star digit_or_underscore), (sym_hex_int, Seq (lit ''6'') (Seq (lit
       ''#'') (Seq (Alt (lit ''_'') One) (Seq hex_digit (Star (Chr (In [(CHR ''_'', CHR ''_''),
       (CHR ''0'', CHR ''9''), (CHR ''a'', CHR ''f''), (CHR ''A'', CHR ''F'')])))))))]),
     (92, [(sym_unsigned_int, Star digit_or_underscore)]),
     (93, [(sym__explicit_signed_int, Star digit_or_underscore), (sym__explicit_signed_real, Alt
       (Seq (Star digit_or_underscore) (Seq (lit ''.'') (Seq digit (Seq (Star digit_or_underscore)
       (Alt exponent One))))) (Seq (Star digit_or_underscore) exponent))]),
     (94, [(sym__explicit_signed_int, Star digit_or_underscore)]),
     (95, [(sym_binary_int, Star (Chr (In [(CHR ''_'', CHR ''_''), (CHR ''0'', CHR ''1'')])))]),
     (96, [(sym_octal_int, Star (Chr (In [(CHR ''_'', CHR ''_''), (CHR ''0'', CHR ''7'')])))]),
     (97, [(sym_hex_int, Star (Chr (In [(CHR ''_'', CHR ''_''), (CHR ''0'', CHR ''9''), (CHR
       ''a'', CHR ''f''), (CHR ''A'', CHR ''F'')])))])]"

definition tokens_left_7 :: "(TSStateId \<times> token_rexps) list" where
  "tokens_left_7 =
    [(98, [(sym__explicit_signed_real, Seq (Star digit_or_underscore) (Alt exponent One))]),
     (99, [(sym__explicit_signed_real, Star digit_or_underscore)]),
     (100, [(sym_real_value, Seq (Star digit_or_underscore) (Alt exponent One))]),
     (101, [(sym_real_value, Star digit_or_underscore)]),
     (102, [(aux_sym_bool_literal_with_string_token1, One)]),
     (103, [(anon_sym_0, One)]),
     (104, [(anon_sym_1, One)]),
     (105, [(sym_s_byte_char_str, One)]),
     (106, [(sym_d_byte_char_str, One)]),
     (107, [(aux_sym_time_token1, One)]),
     (108, [(anon_sym_PLUS, One)]),
     (109, [(anon_sym_PLUS, One), (sym__explicit_signed_int, digits), (sym__explicit_signed_real,
       real)]),
     (110, [(anon_sym_DASH, One)]),
     (111, [(anon_sym_DASH, One), (sym__explicit_signed_int, digits), (sym__explicit_signed_real,
       real)])]"

definition tokens_left_8 :: "(TSStateId \<times> token_rexps) list" where
  "tokens_left_8 =
    [(112, [(aux_sym_ltime_token1, One)]),
     (113, [(sym_time_value, Seq (Star word_char) (Star fraction))]),
     (114, [(aux_sym_tod_token1, One)]),
     (115, [(aux_sym_ltod_token1, One)]),
     (116, [(sym_daytime, Seq (Star word_char) (Star clock_part))]),
     (117, [(aux_sym_short_date_token1, One)]),
     (118, [(aux_sym_long_date_token1, One)]),
     (119, [(aux_sym_date_literal_token1, Seq (Star word_char) (Star date_part))]),
     (120, [(aux_sym_short_date_and_time_token1, One)]),
     (121, [(aux_sym_long_date_and_time_token1, One)]),
     (122, [(anon_sym_LBRACK, One)]),
     (123, [(anon_sym_RBRACK, One)]),
     (124, [(anon_sym_SEMI, One)]),
     (125, [(anon_sym_DOT_DOT, One)])]"

definition tokens_left_9 :: "(TSStateId \<times> token_rexps) list" where
  "tokens_left_9 =
    [(126, [(anon_sym_PERCENT, One)]),
     (127, [(anon_sym_STAR, One)]),
     (128, [(anon_sym_STAR, One), (anon_sym_STAR_STAR, lit ''*'')]),
     (129, [(anon_sym_DOT, One)]),
     (130, [(anon_sym_DOT, One), (anon_sym_DOT_DOT, lit ''.'')]),
     (131, [(anon_sym_DOT, One), (anon_sym_DOT_DOT_DOT, lit ''..'')]),
     (132, [(anon_sym_CARET, One)]),
     (133, [(anon_sym_DOT_DOT_DOT, One)]),
     (134, [(anon_sym_SLASH, One), (sym_line_comment, Seq (lit ''/'') (Star (Chr (Not_In [CHR
       0x0A]))))]),
     (135, [(anon_sym_STAR_STAR, One)]),
     (136, [(anon_sym_AMP, One)]),
     (137, [(anon_sym_PIPE, One)]),
     (138, [(anon_sym_LT_GT, One)]),
     (139, [(anon_sym_LT, One), (anon_sym_LT_EQ, lit ''=''), (anon_sym_LT_GT, lit ''>'')])]"

definition tokens_left_10 :: "(TSStateId \<times> token_rexps) list" where
  "tokens_left_10 =
    [(140, [(anon_sym_GT, One), (anon_sym_GT_EQ, lit ''='')]),
     (141, [(anon_sym_LT_EQ, One)]),
     (142, [(anon_sym_GT_EQ, One)]),
     (143, [(anon_sym_LPAREN_RPAREN, One)]),
     (144, [(anon_sym_I, One)]),
     (145, [(anon_sym_I, One), (sym_adress_identifier, Star (Chr (In [(CHR ''A'', CHR ''Z''), (CHR
       ''a'', CHR ''z'')])))]),
     (146, [(anon_sym_I, One), (sym_identifier, Star (Chr Id_Char))]),
     (147, [(anon_sym_Q, One)]),
     (148, [(anon_sym_Q, One), (sym_adress_identifier, Star (Chr (In [(CHR ''A'', CHR ''Z''), (CHR
       ''a'', CHR ''z'')])))]),
     (149, [(anon_sym_Q, One), (sym_identifier, Star (Chr Id_Char))]),
     (150, [(anon_sym_M, One)]),
     (151, [(anon_sym_M, One), (sym_adress_identifier, Star (Chr (In [(CHR ''A'', CHR ''Z''), (CHR
       ''a'', CHR ''z'')])))]),
     (152, [(anon_sym_M, One), (sym_identifier, Star (Chr Id_Char))]),
     (153, [(aux_sym_time_token1, lit ''#''), (aux_sym_tod_token1, Seq (any_case ''_'') (Seq
       (any_case ''O'') (Seq (any_case ''F'') (Seq (any_case ''_'') (Seq (any_case ''D'') (Seq
       (any_case ''A'') (Seq (any_case ''Y'') (lit ''#'')))))))), (sym_identifier, Star (Chr
       Id_Char))])]"

definition tokens_left_11 :: "(TSStateId \<times> token_rexps) list" where
  "tokens_left_11 =
    [(154, [(aux_sym_time_token1, Alt (Seq (any_case ''I'') (Seq (any_case ''M'') (Seq (any_case
       ''E'') (lit ''#'')))) (lit ''#'')), (sym_identifier, Star (Chr Id_Char))]),
     (155, [(aux_sym_time_token1, Alt (Seq (any_case ''I'') (Seq (any_case ''M'') (Seq (any_case
       ''E'') (lit ''#'')))) (lit ''#'')), (aux_sym_tod_token1, Alt (Seq (any_case ''I'') (Seq
       (any_case ''M'') (Seq (any_case ''E'') (Seq (any_case ''_'') (Seq (any_case ''O'') (Seq
       (any_case ''F'') (Seq (any_case ''_'') (Seq (any_case ''D'') (Seq (any_case ''A'') (Seq
       (any_case ''Y'') (lit ''#''))))))))))) (Seq (any_case ''O'') (Seq (any_case ''D'') (lit
       ''#'')))), (sym_identifier, Star (Chr Id_Char))]),
     (156, [(aux_sym_time_token1, lit ''#''), (sym_identifier, Star (Chr Id_Char))]),
     (157, [(aux_sym_bool_literal_with_string_token1, any_case ''#''), (sym_identifier, Star (Chr
       Id_Char))]),
     (158, [(aux_sym_short_date_token1, lit ''#''), (aux_sym_short_date_and_time_token1, Seq
       (any_case ''_'') (Seq (any_case ''A'') (Seq (any_case ''N'') (Seq (any_case ''D'') (Seq
       (any_case ''_'') (Seq (any_case ''T'') (Seq (any_case ''I'') (Seq (any_case ''M'') (Seq
       (any_case ''E'') (lit ''#'')))))))))), (sym_identifier, Star (Chr Id_Char))]),
     (159, [(aux_sym_short_date_token1, Alt (Seq (any_case ''A'') (Seq (any_case ''T'') (Seq
       (any_case ''E'') (lit ''#'')))) (lit ''#'')), (aux_sym_short_date_and_time_token1, Alt (Seq
       (any_case ''A'') (Seq (any_case ''T'') (Seq (any_case ''E'') (Seq (any_case ''_'') (Seq
       (any_case ''A'') (Seq (any_case ''N'') (Seq (any_case ''D'') (Seq (any_case ''_'') (Seq
       (any_case ''T'') (Seq (any_case ''I'') (Seq (any_case ''M'') (Seq (any_case ''E'') (lit
       ''#''))))))))))))) (Seq (any_case ''T'') (lit ''#''))), (sym_identifier, Star (Chr
       Id_Char))]),
     (160, [(aux_sym_short_date_and_time_token1, lit ''#''), (sym_identifier, Star (Chr
       Id_Char))]),
     (161, [(aux_sym_long_date_token1, lit ''#''), (aux_sym_long_date_and_time_token1, Seq
       (any_case ''_'') (Seq (any_case ''A'') (Seq (any_case ''N'') (Seq (any_case ''D'') (Seq
       (any_case ''_'') (Seq (any_case ''T'') (Seq (any_case ''I'') (Seq (any_case ''M'') (Seq
       (any_case ''E'') (lit ''#'')))))))))), (sym_identifier, Star (Chr Id_Char))]),
     (162, [(aux_sym_long_date_token1, Alt (Seq (any_case ''A'') (Seq (any_case ''T'') (Seq
       (any_case ''E'') (lit ''#'')))) (lit ''#'')), (aux_sym_long_date_and_time_token1, Alt (Seq
       (any_case ''A'') (Seq (any_case ''T'') (Seq (any_case ''E'') (Seq (any_case ''_'') (Seq
       (any_case ''A'') (Seq (any_case ''N'') (Seq (any_case ''D'') (Seq (any_case ''_'') (Seq
       (any_case ''T'') (Seq (any_case ''I'') (Seq (any_case ''M'') (Seq (any_case ''E'') (lit
       ''#''))))))))))))) (Seq (any_case ''T'') (lit ''#''))), (sym_identifier, Star (Chr
       Id_Char))]),
     (163, [(aux_sym_ltime_token1, lit ''#''), (aux_sym_ltod_token1, Seq (any_case ''_'') (Seq
       (any_case ''O'') (Seq (any_case ''F'') (Seq (any_case ''_'') (Seq (any_case ''D'') (Seq
       (any_case ''A'') (Seq (any_case ''Y'') (lit ''#'')))))))), (sym_identifier, Star (Chr
       Id_Char))]),
     (164, [(aux_sym_ltime_token1, Alt (Seq (any_case ''I'') (Seq (any_case ''M'') (Seq (any_case
       ''E'') (lit ''#'')))) (lit ''#'')), (aux_sym_ltod_token1, Alt (Seq (any_case ''I'') (Seq
       (any_case ''M'') (Seq (any_case ''E'') (Seq (any_case ''_'') (Seq (any_case ''O'') (Seq
       (any_case ''F'') (Seq (any_case ''_'') (Seq (any_case ''D'') (Seq (any_case ''A'') (Seq
       (any_case ''Y'') (lit ''#''))))))))))) (Seq (any_case ''O'') (Seq (any_case ''D'') (lit
       ''#'')))), (sym_identifier, Star (Chr Id_Char))]),
     (165, [(aux_sym_ltime_token1, Alt (Seq (any_case ''I'') (Seq (any_case ''M'') (Seq (any_case
       ''E'') (lit ''#'')))) (lit ''#'')), (sym_identifier, Star (Chr Id_Char))]),
     (166, [(aux_sym_ltime_token1, lit ''#''), (sym_identifier, Star (Chr Id_Char))]),
     (167, [(aux_sym_long_date_and_time_token1, lit ''#''), (sym_identifier, Star (Chr Id_Char))])]"

definition tokens_left_12 :: "(TSStateId \<times> token_rexps) list" where
  "tokens_left_12 =
    [(168, [(aux_sym_tod_token1, lit ''#''), (sym_identifier, Star (Chr Id_Char))]),
     (169, [(aux_sym_ltod_token1, lit ''#''), (sym_identifier, Star (Chr Id_Char))]),
     (170, [(aux_sym_short_date_and_time_token1, Seq (any_case ''_'') (Seq (any_case ''T'') (Seq
       (any_case ''I'') (Seq (any_case ''M'') (Seq (any_case ''E'') (lit ''#'')))))),
       (sym_identifier, Star (Chr Id_Char))]),
     (171, [(aux_sym_tod_token1, Seq (any_case ''_'') (Seq (any_case ''D'') (Seq (any_case ''A'')
       (Seq (any_case ''Y'') (lit ''#''))))), (sym_identifier, Star (Chr Id_Char))]),
     (172, [(aux_sym_ltod_token1, Seq (any_case ''_'') (Seq (any_case ''D'') (Seq (any_case ''A'')
       (Seq (any_case ''Y'') (lit ''#''))))), (sym_identifier, Star (Chr Id_Char))]),
     (173, [(aux_sym_long_date_and_time_token1, Seq (any_case ''_'') (Seq (any_case ''T'') (Seq
       (any_case ''I'') (Seq (any_case ''M'') (Seq (any_case ''E'') (lit ''#'')))))),
       (sym_identifier, Star (Chr Id_Char))]),
     (174, [(aux_sym_short_date_and_time_token1, Seq (any_case ''A'') (Seq (any_case ''N'') (Seq
       (any_case ''D'') (Seq (any_case ''_'') (Seq (any_case ''T'') (Seq (any_case ''I'') (Seq
       (any_case ''M'') (Seq (any_case ''E'') (lit ''#''))))))))), (sym_identifier, Star (Chr
       Id_Char))]),
     (175, [(aux_sym_tod_token1, Seq (any_case ''A'') (Seq (any_case ''Y'') (lit ''#''))),
       (sym_identifier, Star (Chr Id_Char))]),
     (176, [(aux_sym_ltod_token1, Seq (any_case ''A'') (Seq (any_case ''Y'') (lit ''#''))),
       (sym_identifier, Star (Chr Id_Char))]),
     (177, [(aux_sym_long_date_and_time_token1, Seq (any_case ''A'') (Seq (any_case ''N'') (Seq
       (any_case ''D'') (Seq (any_case ''_'') (Seq (any_case ''T'') (Seq (any_case ''I'') (Seq
       (any_case ''M'') (Seq (any_case ''E'') (lit ''#''))))))))), (sym_identifier, Star (Chr
       Id_Char))]),
     (178, [(aux_sym_ltime_token1, Alt (Seq (any_case ''T'') (Seq (any_case ''I'') (Seq (any_case
       ''M'') (Seq (any_case ''E'') (lit ''#''))))) (Seq (any_case ''T'') (lit ''#''))),
       (aux_sym_ltod_token1, Alt (Seq (any_case ''T'') (Seq (any_case ''I'') (Seq (any_case ''M'')
       (Seq (any_case ''E'') (Seq (any_case ''_'') (Seq (any_case ''O'') (Seq (any_case ''F'')
       (Seq (any_case ''_'') (Seq (any_case ''D'') (Seq (any_case ''A'') (Seq (any_case ''Y'')
       (lit ''#'')))))))))))) (Seq (any_case ''T'') (Seq (any_case ''O'') (Seq (any_case ''D'')
       (lit ''#''))))), (aux_sym_long_date_token1, Alt (Seq (any_case ''D'') (Seq (any_case ''A'')
       (Seq (any_case ''T'') (Seq (any_case ''E'') (lit ''#''))))) (Seq (any_case ''D'') (lit
       ''#''))), (aux_sym_long_date_and_time_token1, Alt (Seq (any_case ''D'') (Seq (any_case
       ''A'') (Seq (any_case ''T'') (Seq (any_case ''E'') (Seq (any_case ''_'') (Seq (any_case
       ''A'') (Seq (any_case ''N'') (Seq (any_case ''D'') (Seq (any_case ''_'') (Seq (any_case
       ''T'') (Seq (any_case ''I'') (Seq (any_case ''M'') (Seq (any_case ''E'') (lit
       ''#'')))))))))))))) (Seq (any_case ''D'') (Seq (any_case ''T'') (lit ''#'')))),
       (sym_identifier, Star (Chr Id_Char))]),
     (179, [(aux_sym_tod_token1, Seq (any_case ''D'') (Seq (any_case ''A'') (Seq (any_case ''Y'')
       (lit ''#'')))), (sym_identifier, Star (Chr Id_Char))]),
     (180, [(aux_sym_short_date_and_time_token1, Seq (any_case ''D'') (Seq (any_case ''_'') (Seq
       (any_case ''T'') (Seq (any_case ''I'') (Seq (any_case ''M'') (Seq (any_case ''E'') (lit
       ''#''))))))), (sym_identifier, Star (Chr Id_Char))]),
     (181, [(aux_sym_tod_token1, Seq (any_case ''D'') (lit ''#'')), (sym_identifier, Star (Chr
       Id_Char))])]"

definition tokens_left_13 :: "(TSStateId \<times> token_rexps) list" where
  "tokens_left_13 =
    [(182, [(aux_sym_ltod_token1, Seq (any_case ''D'') (lit ''#'')), (sym_identifier, Star (Chr
       Id_Char))]),
     (183, [(aux_sym_ltod_token1, Seq (any_case ''D'') (Seq (any_case ''A'') (Seq (any_case ''Y'')
       (lit ''#'')))), (sym_identifier, Star (Chr Id_Char))]),
     (184, [(aux_sym_long_date_and_time_token1, Seq (any_case ''D'') (Seq (any_case ''_'') (Seq
       (any_case ''T'') (Seq (any_case ''I'') (Seq (any_case ''M'') (Seq (any_case ''E'') (lit
       ''#''))))))), (sym_identifier, Star (Chr Id_Char))]),
     (185, [(aux_sym_short_date_token1, Seq (any_case ''E'') (lit ''#'')),
       (aux_sym_short_date_and_time_token1, Seq (any_case ''E'') (Seq (any_case ''_'') (Seq
       (any_case ''A'') (Seq (any_case ''N'') (Seq (any_case ''D'') (Seq (any_case ''_'') (Seq
       (any_case ''T'') (Seq (any_case ''I'') (Seq (any_case ''M'') (Seq (any_case ''E'') (lit
       ''#''))))))))))), (sym_identifier, Star (Chr Id_Char))]),
     (186, [(aux_sym_time_token1, Seq (any_case ''E'') (lit ''#'')), (sym_identifier, Star (Chr
       Id_Char))]),
     (187, [(aux_sym_time_token1, Seq (any_case ''E'') (lit ''#'')), (aux_sym_tod_token1, Seq
       (any_case ''E'') (Seq (any_case ''_'') (Seq (any_case ''O'') (Seq (any_case ''F'') (Seq
       (any_case ''_'') (Seq (any_case ''D'') (Seq (any_case ''A'') (Seq (any_case ''Y'') (lit
       ''#''))))))))), (sym_identifier, Star (Chr Id_Char))]),
     (188, [(aux_sym_short_date_and_time_token1, Seq (any_case ''E'') (lit ''#'')),
       (sym_identifier, Star (Chr Id_Char))]),
     (189, [(aux_sym_long_date_token1, Seq (any_case ''E'') (lit ''#'')),
       (aux_sym_long_date_and_time_token1, Seq (any_case ''E'') (Seq (any_case ''_'') (Seq
       (any_case ''A'') (Seq (any_case ''N'') (Seq (any_case ''D'') (Seq (any_case ''_'') (Seq
       (any_case ''T'') (Seq (any_case ''I'') (Seq (any_case ''M'') (Seq (any_case ''E'') (lit
       ''#''))))))))))), (sym_identifier, Star (Chr Id_Char))]),
     (190, [(aux_sym_long_date_and_time_token1, Seq (any_case ''E'') (lit ''#'')),
       (sym_identifier, Star (Chr Id_Char))]),
     (191, [(aux_sym_ltime_token1, Seq (any_case ''E'') (lit ''#'')), (aux_sym_ltod_token1, Seq
       (any_case ''E'') (Seq (any_case ''_'') (Seq (any_case ''O'') (Seq (any_case ''F'') (Seq
       (any_case ''_'') (Seq (any_case ''D'') (Seq (any_case ''A'') (Seq (any_case ''Y'') (lit
       ''#''))))))))), (sym_identifier, Star (Chr Id_Char))]),
     (192, [(aux_sym_ltime_token1, Seq (any_case ''E'') (lit ''#'')), (sym_identifier, Star (Chr
       Id_Char))]),
     (193, [(aux_sym_tod_token1, Seq (any_case ''F'') (Seq (any_case ''_'') (Seq (any_case ''D'')
       (Seq (any_case ''A'') (Seq (any_case ''Y'') (lit ''#'')))))), (sym_identifier, Star (Chr
       Id_Char))]),
     (194, [(aux_sym_ltod_token1, Seq (any_case ''F'') (Seq (any_case ''_'') (Seq (any_case ''D'')
       (Seq (any_case ''A'') (Seq (any_case ''Y'') (lit ''#'')))))), (sym_identifier, Star (Chr
       Id_Char))]),
     (195, [(aux_sym_short_date_and_time_token1, Seq (any_case ''I'') (Seq (any_case ''M'') (Seq
       (any_case ''E'') (lit ''#'')))), (sym_identifier, Star (Chr Id_Char))])]"

definition tokens_left_14 :: "(TSStateId \<times> token_rexps) list" where
  "tokens_left_14 =
    [(196, [(aux_sym_long_date_and_time_token1, Seq (any_case ''I'') (Seq (any_case ''M'') (Seq
       (any_case ''E'') (lit ''#'')))), (sym_identifier, Star (Chr Id_Char))]),
     (197, [(aux_sym_bool_literal_with_string_token1, any_case ''L#''), (sym_identifier, Star (Chr
       Id_Char))]),
     (198, [(aux_sym_time_token1, Seq (any_case ''M'') (Seq (any_case ''E'') (lit ''#''))),
       (sym_identifier, Star (Chr Id_Char))]),
     (199, [(aux_sym_time_token1, Seq (any_case ''M'') (Seq (any_case ''E'') (lit ''#''))),
       (aux_sym_tod_token1, Seq (any_case ''M'') (Seq (any_case ''E'') (Seq (any_case ''_'') (Seq
       (any_case ''O'') (Seq (any_case ''F'') (Seq (any_case ''_'') (Seq (any_case ''D'') (Seq
       (any_case ''A'') (Seq (any_case ''Y'') (lit ''#'')))))))))), (sym_identifier, Star (Chr
       Id_Char))]),
     (200, [(aux_sym_ltime_token1, Seq (any_case ''M'') (Seq (any_case ''E'') (lit ''#''))),
       (aux_sym_ltod_token1, Seq (any_case ''M'') (Seq (any_case ''E'') (Seq (any_case ''_'') (Seq
       (any_case ''O'') (Seq (any_case ''F'') (Seq (any_case ''_'') (Seq (any_case ''D'') (Seq
       (any_case ''A'') (Seq (any_case ''Y'') (lit ''#'')))))))))), (sym_identifier, Star (Chr
       Id_Char))]),
     (201, [(aux_sym_short_date_and_time_token1, Seq (any_case ''M'') (Seq (any_case ''E'') (lit
       ''#''))), (sym_identifier, Star (Chr Id_Char))]),
     (202, [(aux_sym_long_date_and_time_token1, Seq (any_case ''M'') (Seq (any_case ''E'') (lit
       ''#''))), (sym_identifier, Star (Chr Id_Char))]),
     (203, [(aux_sym_ltime_token1, Seq (any_case ''M'') (Seq (any_case ''E'') (lit ''#''))),
       (sym_identifier, Star (Chr Id_Char))]),
     (204, [(aux_sym_short_date_and_time_token1, Seq (any_case ''N'') (Seq (any_case ''D'') (Seq
       (any_case ''_'') (Seq (any_case ''T'') (Seq (any_case ''I'') (Seq (any_case ''M'') (Seq
       (any_case ''E'') (lit ''#'')))))))), (sym_identifier, Star (Chr Id_Char))]),
     (205, [(aux_sym_long_date_and_time_token1, Seq (any_case ''N'') (Seq (any_case ''D'') (Seq
       (any_case ''_'') (Seq (any_case ''T'') (Seq (any_case ''I'') (Seq (any_case ''M'') (Seq
       (any_case ''E'') (lit ''#'')))))))), (sym_identifier, Star (Chr Id_Char))]),
     (206, [(aux_sym_bool_literal_with_string_token1, any_case ''OL#''), (sym_identifier, Star
       (Chr Id_Char))]),
     (207, [(aux_sym_tod_token1, Seq (any_case ''O'') (Seq (any_case ''F'') (Seq (any_case ''_'')
       (Seq (any_case ''D'') (Seq (any_case ''A'') (Seq (any_case ''Y'') (lit ''#''))))))),
       (sym_identifier, Star (Chr Id_Char))]),
     (208, [(aux_sym_bool_literal_with_string_token1, any_case ''OOL#''), (sym_identifier, Star
       (Chr Id_Char))]),
     (209, [(aux_sym_ltod_token1, Seq (any_case ''O'') (Seq (any_case ''F'') (Seq (any_case ''_'')
       (Seq (any_case ''D'') (Seq (any_case ''A'') (Seq (any_case ''Y'') (lit ''#''))))))),
       (sym_identifier, Star (Chr Id_Char))])]"

definition tokens_left_15 :: "(TSStateId \<times> token_rexps) list" where
  "tokens_left_15 =
    [(210, [(aux_sym_short_date_and_time_token1, Seq (any_case ''T'') (Seq (any_case ''I'') (Seq
       (any_case ''M'') (Seq (any_case ''E'') (lit ''#''))))), (sym_identifier, Star (Chr
       Id_Char))]),
     (211, [(aux_sym_ltime_token1, Alt (Seq (any_case ''T'') (Seq (any_case ''I'') (Seq (any_case
       ''M'') (Seq (any_case ''E'') (lit ''#''))))) (Seq (any_case ''T'') (lit ''#''))),
       (sym_identifier, Star (Chr Id_Char))]),
     (212, [(aux_sym_short_date_token1, Seq (any_case ''T'') (Seq (any_case ''E'') (lit ''#''))),
       (aux_sym_short_date_and_time_token1, Seq (any_case ''T'') (Seq (any_case ''E'') (Seq
       (any_case ''_'') (Seq (any_case ''A'') (Seq (any_case ''N'') (Seq (any_case ''D'') (Seq
       (any_case ''_'') (Seq (any_case ''T'') (Seq (any_case ''I'') (Seq (any_case ''M'') (Seq
       (any_case ''E'') (lit ''#'')))))))))))), (sym_identifier, Star (Chr Id_Char))]),
     (213, [(aux_sym_long_date_token1, Seq (any_case ''T'') (Seq (any_case ''E'') (lit ''#''))),
       (aux_sym_long_date_and_time_token1, Seq (any_case ''T'') (Seq (any_case ''E'') (Seq
       (any_case ''_'') (Seq (any_case ''A'') (Seq (any_case ''N'') (Seq (any_case ''D'') (Seq
       (any_case ''_'') (Seq (any_case ''T'') (Seq (any_case ''I'') (Seq (any_case ''M'') (Seq
       (any_case ''E'') (lit ''#'')))))))))))), (sym_identifier, Star (Chr Id_Char))]),
     (214, [(aux_sym_long_date_and_time_token1, Seq (any_case ''T'') (Seq (any_case ''I'') (Seq
       (any_case ''M'') (Seq (any_case ''E'') (lit ''#''))))), (sym_identifier, Star (Chr
       Id_Char))]),
     (215, [(aux_sym_tod_token1, Seq (any_case ''Y'') (lit ''#'')), (sym_identifier, Star (Chr
       Id_Char))]),
     (216, [(aux_sym_ltod_token1, Seq (any_case ''Y'') (lit ''#'')), (sym_identifier, Star (Chr
       Id_Char))]),
     (217, [(sym_identifier, Star (Chr Id_Char))])]"

definition tokens_left :: "(TSStateId \<times> token_rexps) list" where
  "tokens_left =
     tokens_left_1 @ tokens_left_2 @ tokens_left_3 @ tokens_left_4 @ tokens_left_5 @ tokens_left_6
       @ tokens_left_7 @ tokens_left_8 @ tokens_left_9 @ tokens_left_10 @ tokens_left_11 @
       tokens_left_12 @ tokens_left_13 @ tokens_left_14 @ tokens_left_15"

lemmas tokens_left_parts =
  tokens_left_1_def tokens_left_2_def tokens_left_3_def tokens_left_4_def tokens_left_5_def
    tokens_left_6_def tokens_left_7_def tokens_left_8_def tokens_left_9_def tokens_left_10_def
    tokens_left_11_def tokens_left_12_def tokens_left_13_def tokens_left_14_def tokens_left_15_def

definition left :: "TSStateId \<Rightarrow> token_rexps" where
  "left q =
     (case map_of lex_state_tokens q of
        Some ys \<Rightarrow> map (\<lambda>y. (y, token_rexp y)) ys
      | None \<Rightarrow> (case map_of tokens_left q of None \<Rightarrow> [] | Some rs \<Rightarrow> rs))"

section \<open>The values of these tables\<close>

lemma other_case_pound: "other_case (CHR ''#'') = CHR ''#''"
  by (simp add: other_case_def)

lemma token_rexp_entries: "list_all (\<lambda>(y, r). token_rexp y = r) token_rexps"
proof -
  have "distinct (map fst token_rexps)"
    by (simp add: token_rexps_def token_rexps_parts token_numbers)
  from map_of_entries[OF this] show ?thesis
    by (auto simp: token_rexp_def list_all_iff split: option.splits)
qed

lemma lex_state_entries:
  "list_all (\<lambda>(q, ys). left q = map (\<lambda>y. (y, token_rexp y)) ys) lex_state_tokens"
proof -
  have "distinct (map fst lex_state_tokens)"
    by (simp add: lex_state_tokens_def)
  from map_of_entries[OF this] show ?thesis
    by (auto simp: left_def list_all_iff split: option.splits)
qed

lemma left_entries: "list_all (\<lambda>(q, rs). left q = rs) tokens_left"
proof -
  have "list_all (\<lambda>(q, ys). q \<notin> set (map fst tokens_left)) lex_state_tokens"
    by (simp add: lex_state_tokens_def tokens_left_def tokens_left_parts)
  then have none: "map_of lex_state_tokens q = None" if "(q, rs) \<in> set tokens_left" for q rs
    using that by (force simp: list_all_iff map_of_eq_None_iff)
  have "distinct (map fst tokens_left)"
    by (simp add: tokens_left_def tokens_left_parts)
  from map_of_entries[OF this] show ?thesis
    by (auto simp: left_def list_all_iff none split: option.splits)
qed

lemmas rexp_values =
  digit_def digit_or_underscore_def digits_def hex_digit_def word_char_def sign_def exponent_def
  real_def based_def part_after_def fraction_def clock_part_def date_part_def literal_prefix_def
  string_escape_def s_byte_char_def d_byte_char_def lit_def any_case_def chr_def either_case_def
  opt_def sequence.simps choice.simps seq.simps list.map other_case_upper other_case_pound

text \<open>
  Each entry as an equation. The facts are kept in small groups, for which the simplifier prepares its
  rules quickly.
\<close>

lemma left_parts:
  "list_all (\<lambda>(q, rs). left q = rs) tokens_left_1"
  "list_all (\<lambda>(q, rs). left q = rs) tokens_left_2"
  "list_all (\<lambda>(q, rs). left q = rs) tokens_left_3"
  "list_all (\<lambda>(q, rs). left q = rs) tokens_left_4"
  "list_all (\<lambda>(q, rs). left q = rs) tokens_left_5"
  "list_all (\<lambda>(q, rs). left q = rs) tokens_left_6"
  "list_all (\<lambda>(q, rs). left q = rs) tokens_left_7"
  "list_all (\<lambda>(q, rs). left q = rs) tokens_left_8"
  "list_all (\<lambda>(q, rs). left q = rs) tokens_left_9"
  "list_all (\<lambda>(q, rs). left q = rs) tokens_left_10"
  "list_all (\<lambda>(q, rs). left q = rs) tokens_left_11"
  "list_all (\<lambda>(q, rs). left q = rs) tokens_left_12"
  "list_all (\<lambda>(q, rs). left q = rs) tokens_left_13"
  "list_all (\<lambda>(q, rs). left q = rs) tokens_left_14"
  "list_all (\<lambda>(q, rs). left q = rs) tokens_left_15"
  using left_entries by (simp_all only: tokens_left_def list_all_append)

lemmas left_value_1 =
  left_parts(1) [unfolded tokens_left_1_def entry_simps rexp_values]
lemmas left_value_2 =
  left_parts(2) [unfolded tokens_left_2_def entry_simps rexp_values]
lemmas left_value_3 =
  left_parts(3) [unfolded tokens_left_3_def entry_simps rexp_values]
lemmas left_value_4 =
  left_parts(4) [unfolded tokens_left_4_def entry_simps rexp_values]
lemmas left_value_5 =
  left_parts(5) [unfolded tokens_left_5_def entry_simps rexp_values]
lemmas left_value_6 =
  left_parts(6) [unfolded tokens_left_6_def entry_simps rexp_values]
lemmas left_value_7 =
  left_parts(7) [unfolded tokens_left_7_def entry_simps rexp_values]
lemmas left_value_8 =
  left_parts(8) [unfolded tokens_left_8_def entry_simps rexp_values]
lemmas left_value_9 =
  left_parts(9) [unfolded tokens_left_9_def entry_simps rexp_values]
lemmas left_value_10 =
  left_parts(10) [unfolded tokens_left_10_def entry_simps rexp_values]
lemmas left_value_11 =
  left_parts(11) [unfolded tokens_left_11_def entry_simps rexp_values]
lemmas left_value_12 =
  left_parts(12) [unfolded tokens_left_12_def entry_simps rexp_values]
lemmas left_value_13 =
  left_parts(13) [unfolded tokens_left_13_def entry_simps rexp_values]
lemmas left_value_14 =
  left_parts(14) [unfolded tokens_left_14_def entry_simps rexp_values]
lemmas left_value_15 =
  left_parts(15) [unfolded tokens_left_15_def entry_simps rexp_values]

lemmas left_value =
  left_value_1 left_value_2 left_value_3 left_value_4 left_value_5 left_value_6 left_value_7
    left_value_8 left_value_9 left_value_10 left_value_11 left_value_12 left_value_13
    left_value_14 left_value_15

text \<open>The codes of the characters that the table and the expressions name.\<close>

lemma code_values:
  "code (CHR 0x00) = 0"
  "code (CHR 0x09) = 9"
  "code (CHR 0x0A) = 10"
  "code (CHR 0x0D) = 13"
  "code (CHR '' '') = 32"
  "code (CHR ''!'') = 33"
  "code (CHR 0x22) = 34"
  "code (CHR ''#'') = 35"
  "code (CHR ''$'') = 36"
  "code (CHR ''%'') = 37"
  "code (CHR ''&'') = 38"
  "code (CHR 0x27) = 39"
  "code (CHR ''('') = 40"
  "code (CHR '')'') = 41"
  "code (CHR ''*'') = 42"
  "code (CHR ''+'') = 43"
  "code (CHR '','') = 44"
  "code (CHR ''-'') = 45"
  "code (CHR ''.'') = 46"
  "code (CHR ''/'') = 47"
  "code (CHR ''0'') = 48"
  "code (CHR ''1'') = 49"
  "code (CHR ''2'') = 50"
  "code (CHR ''3'') = 51"
  "code (CHR ''4'') = 52"
  "code (CHR ''5'') = 53"
  "code (CHR ''6'') = 54"
  "code (CHR ''7'') = 55"
  "code (CHR ''8'') = 56"
  "code (CHR ''9'') = 57"
  "code (CHR '':'') = 58"
  "code (CHR '';'') = 59"
  "code (CHR ''<'') = 60"
  "code (CHR ''='') = 61"
  "code (CHR ''>'') = 62"
  "code (CHR ''?'') = 63"
  "code (CHR ''@'') = 64"
  "code (CHR ''A'') = 65"
  "code (CHR ''B'') = 66"
  "code (CHR ''C'') = 67"
  "code (CHR ''D'') = 68"
  "code (CHR ''E'') = 69"
  "code (CHR ''F'') = 70"
  "code (CHR ''G'') = 71"
  "code (CHR ''H'') = 72"
  "code (CHR ''I'') = 73"
  "code (CHR ''J'') = 74"
  "code (CHR ''K'') = 75"
  "code (CHR ''L'') = 76"
  "code (CHR ''M'') = 77"
  "code (CHR ''N'') = 78"
  "code (CHR ''O'') = 79"
  "code (CHR ''P'') = 80"
  "code (CHR ''Q'') = 81"
  "code (CHR ''R'') = 82"
  "code (CHR ''S'') = 83"
  "code (CHR ''T'') = 84"
  "code (CHR ''U'') = 85"
  "code (CHR ''V'') = 86"
  "code (CHR ''W'') = 87"
  "code (CHR ''X'') = 88"
  "code (CHR ''Y'') = 89"
  "code (CHR ''Z'') = 90"
  "code (CHR ''['') = 91"
  "code (CHR 0x5C) = 92"
  "code (CHR '']'') = 93"
  "code (CHR ''^'') = 94"
  "code (CHR ''_'') = 95"
  "code (CHR 0x60) = 96"
  "code (CHR ''a'') = 97"
  "code (CHR ''b'') = 98"
  "code (CHR ''c'') = 99"
  "code (CHR ''d'') = 100"
  "code (CHR ''e'') = 101"
  "code (CHR ''f'') = 102"
  "code (CHR ''g'') = 103"
  "code (CHR ''h'') = 104"
  "code (CHR ''i'') = 105"
  "code (CHR ''j'') = 106"
  "code (CHR ''k'') = 107"
  "code (CHR ''l'') = 108"
  "code (CHR ''m'') = 109"
  "code (CHR ''n'') = 110"
  "code (CHR ''o'') = 111"
  "code (CHR ''p'') = 112"
  "code (CHR ''q'') = 113"
  "code (CHR ''r'') = 114"
  "code (CHR ''s'') = 115"
  "code (CHR ''t'') = 116"
  "code (CHR ''u'') = 117"
  "code (CHR ''v'') = 118"
  "code (CHR ''w'') = 119"
  "code (CHR ''x'') = 120"
  "code (CHR ''y'') = 121"
  "code (CHR ''z'') = 122"
  "code (CHR ''{'') = 123"
  "code (CHR ''|'') = 124"
  "code (CHR ''}'') = 125"
  "code (CHR ''~'') = 126"
  by (simp_all add: code_def)

lemma one_code: "x \<le> c \<and> c \<le> x \<longleftrightarrow> c = x" for x c :: code_point
  by auto

lemma binary_code: "48 \<le> c \<and> c \<le> 49 \<longleftrightarrow> c = 48 \<or> c = 49" for c :: code_point
  by auto

lemma list_ex_equations:
  "list_ex P [] = False" "list_ex P (x # xs) = (P x \<or> list_ex P xs)"
  by simp_all

text \<open>What each token is after its first character, and whether it can be empty.\<close>

definition token_deriv :: "code_point \<Rightarrow> TSSymbol \<times> rexp \<Rightarrow> bool" where
  "token_deriv c = (\<lambda>(y, r).
     deriv c (token_rexp y) = after c (heads r) \<and> nullable (token_rexp y) = nullable r)"

lemma token_deriv_parts:
  "list_all (token_deriv c) punctuation_tokens_1"
  "list_all (token_deriv c) punctuation_tokens_2"
  "list_all (token_deriv c) comment_tokens"
  "list_all (token_deriv c) number_tokens"
  "list_all (token_deriv c) literal_tokens"
  "list_all (token_deriv c) value_tokens"
proof -
  have "list_all (token_deriv c) token_rexps"
    using token_rexp_entries by (auto simp: list_all_iff token_deriv_def deriv_def)
  then show "list_all (token_deriv c) punctuation_tokens_1"
    "list_all (token_deriv c) punctuation_tokens_2"
    "list_all (token_deriv c) comment_tokens"
    "list_all (token_deriv c) number_tokens"
    "list_all (token_deriv c) literal_tokens"
    "list_all (token_deriv c) value_tokens"
    by (simp_all only: token_rexps_def list_all_append)
qed

lemmas token_deriv_simps =
  entry_simps token_deriv_def rexp_values heads.simps nullable.simps heads_then_def if_True if_False
  after.simps in_set.simps list_ex_equations code_values one_code alt.simps add_choice_def
  rexp.distinct refl

lemmas token_deriv_1 = token_deriv_parts(1) [unfolded punctuation_tokens_1_def, simplified token_deriv_simps]
lemmas token_deriv_2 = token_deriv_parts(2) [unfolded punctuation_tokens_2_def, simplified token_deriv_simps]
lemmas token_deriv_3 = token_deriv_parts(3) [unfolded comment_tokens_def, simplified token_deriv_simps]
lemmas token_deriv_4 = token_deriv_parts(4) [unfolded number_tokens_def, simplified token_deriv_simps]
lemmas token_deriv_5 = token_deriv_parts(5) [unfolded literal_tokens_def, simplified token_deriv_simps]
lemmas token_deriv_6 = token_deriv_parts(6) [unfolded value_tokens_def, simplified token_deriv_simps]

lemmas token_deriv_value =
  token_deriv_1 token_deriv_2 token_deriv_3 token_deriv_4 token_deriv_5 token_deriv_6

lemmas left_start_value = lex_state_entries [unfolded lex_state_tokens_def entry_simps list.map]

lemma adress_identifier_value:
  "token_rexp sym_adress_identifier = Star (Chr (In [(CHR ''A'', CHR ''Z''), (CHR ''a'', CHR ''z'')]))"
  using token_rexp_entries by (simp add: list_all_iff token_rexps_def value_tokens_def)

section \<open>The check\<close>

lemmas read_simps =
  ts_lex_parts left_value left_start_value token_deriv_value deriv_heads heads_then_def add_choice_def
  code_values one_code reads_at_of derivs_of_def
  identifier_start_def [symmetric] identifier_char_def [symmetric]
  identifier_start_ascii identifier_char_ascii ascii_letter_def

text \<open>The start states with many tokens, and the characters they tell apart.\<close>

definition wide_starts :: "TSStateId list" where
  "wide_starts = [0, 1, 2, 3, 4, 7, 8, 12, 63]"

definition first_chars :: "char list" where
  "first_chars = [CHR 0x22, CHR 0x27] @ ''#%&()*+,-./0128:;<=>BDILMQT[]^bdlt{|}''"

abbreviation reads_chars :: "lex_table \<Rightarrow> bool" where
  "reads_chars cases \<equiv> list_all (\<lambda>(q, k). if List.member wide_starts q
     then list_all (\<lambda>x. reads_at left (code x) (left q) k) first_chars \<and>
       case_accepts k = first_nullable (left q)
     else True) cases"

abbreviation reads_others :: "code_point \<Rightarrow> lex_table \<Rightarrow> bool" where
  "reads_others c cases \<equiv> list_all (\<lambda>(q, k). if List.member wide_starts q
     then reads_at left c (left q) k else True) cases"

abbreviation reads_rest :: "lex_table \<Rightarrow> bool" where
  "reads_rest cases \<equiv> list_all (\<lambda>(q, k). if List.member wide_starts q
     then True else case_reads left (left q) k) cases"

abbreviation reads :: "lex_table \<Rightarrow> bool" where
  "reads cases \<equiv> list_all (\<lambda>(q, k). case_reads left (left q) k) cases"

lemmas open_cases =
  ts_lex_parts first_chars_def append.simps list_all_equations prod.case code_values simp_thms

lemma chars_1: "reads_chars ts_lex_cases_1"
  by (simp only: open_cases cong: reads_at_weak)
    (simp add: wide_starts_def read_simps del: One_nat_def cong: read_weak)

lemma others_1: "list_all (\<lambda>x. c \<noteq> code x) first_chars \<Longrightarrow> reads_others c ts_lex_cases_1"
  by (simp only: open_cases cong: reads_at_weak, elim conjE)
    (simp add: wide_starts_def read_simps split: if_split del: One_nat_def cong: read_weak)

lemma rest_1: "reads_rest ts_lex_cases_1"
  by (simp add: wide_starts_def case_reads_def read_simps binary_code split: if_split del: One_nat_def)

lemmas reads_1 = case_reads_at_chars [OF chars_1 others_1 rest_1]

lemma chars_2: "reads_chars ts_lex_cases_2"
  by (simp only: open_cases cong: reads_at_weak)
    (simp add: wide_starts_def read_simps del: One_nat_def cong: read_weak)

lemma others_2: "list_all (\<lambda>x. c \<noteq> code x) first_chars \<Longrightarrow> reads_others c ts_lex_cases_2"
  by (simp only: open_cases cong: reads_at_weak, elim conjE)
    (simp add: wide_starts_def read_simps split: if_split del: One_nat_def cong: read_weak)

lemma rest_2: "reads_rest ts_lex_cases_2"
  by (simp add: wide_starts_def case_reads_def read_simps binary_code split: if_split del: One_nat_def)

lemmas reads_2 = case_reads_at_chars [OF chars_2 others_2 rest_2]

lemma chars_4: "reads_chars ts_lex_cases_4"
  by (simp only: open_cases cong: reads_at_weak)
    (simp add: wide_starts_def read_simps del: One_nat_def cong: read_weak)

lemma others_4: "list_all (\<lambda>x. c \<noteq> code x) first_chars \<Longrightarrow> reads_others c ts_lex_cases_4"
  by (simp only: open_cases cong: reads_at_weak, elim conjE)
    (simp add: wide_starts_def read_simps split: if_split del: One_nat_def cong: read_weak)

lemma rest_4: "reads_rest ts_lex_cases_4"
  by (simp add: wide_starts_def case_reads_def read_simps binary_code split: if_split del: One_nat_def)

lemmas reads_4 = case_reads_at_chars [OF chars_4 others_4 rest_4]

lemma reads_3: "reads ts_lex_cases_3"
  by (simp add: case_reads_def read_simps binary_code split: if_split del: One_nat_def)

lemma reads_5: "reads ts_lex_cases_5"
  by (simp add: case_reads_def read_simps binary_code split: if_split del: One_nat_def)

lemma reads_6: "reads ts_lex_cases_6"
  by (simp add: case_reads_def read_simps binary_code split: if_split del: One_nat_def)

lemma reads_7: "reads ts_lex_cases_7"
  by (simp add: case_reads_def read_simps adress_identifier_value split: if_split del: One_nat_def)

lemma reads_8: "reads ts_lex_cases_8"
  by (simp add: case_reads_def read_simps binary_code split: if_split del: One_nat_def)

lemma reads_9: "reads ts_lex_cases_9"
  by (simp add: case_reads_def read_simps binary_code split: if_split del: One_nat_def)

lemma reads_10: "reads ts_lex_cases_10"
  by (simp add: case_reads_def read_simps adress_identifier_value split: if_split del: One_nat_def)

lemma ts_lex_reads: "reads ts_lex_cases"
  unfolding ts_lex_cases_def list_all_append
  by (intro conjI reads_1 reads_2 reads_3 reads_4 reads_5 reads_6 reads_7 reads_8 reads_9 reads_10)

interpretation tokens: expression_automaton ts_lex_cases "{q. q < 220}" left
  by (rule lex.automaton_of_cases [OF ts_lex_reads])

section \<open>The words of a lex state\<close>

definition lex_states :: "TSStateId list" where
  "lex_states = map fst lex_state_tokens"

text \<open>The tokens of a lex state with their expressions, the one to prefer first.\<close>

definition state_tokens :: "TSStateId \<Rightarrow> token_rexps" where
  "state_tokens q =
     (case map_of lex_state_tokens q of
        None \<Rightarrow> [] | Some ys \<Rightarrow> map (\<lambda>y. (y, token_rexp y)) ys)"

lemma left_state_tokens: "q \<in> set lex_states \<Longrightarrow> left q = state_tokens q"
  by (auto simp: left_def state_tokens_def lex_states_def map_of_eq_None_iff split: option.splits)

lemma lex_states_value: "lex_states = [0, 1, 2, 3, 4, 7, 8, 12, 13, 15, 18, 19, 20, 63, 218, 219]"
  by (simp add: lex_states_def lex_state_tokens_def)

lemma lex_states_less: "q \<in> set lex_states \<Longrightarrow> q < 220"
  by (auto simp: lex_states_value)

lemma lex_state_accepts:
  "q \<in> set lex_states \<Longrightarrow> accepts ts_lex_cases q w y \<longleftrightarrow> first_token (state_tokens q) w = Some y"
  using tokens.accepts_first_token[of q w y] by (simp add: lex_states_less left_state_tokens)

end
