(* ===== verification/Token_Properties.thy ===== *)
theory Token_Properties
  imports Token_Language
begin

text \<open>
  The properties of the tokens of \<open>ts_lex\<close>: the words each lex state reads are those of the grammar's
  expressions, and what follows from that for all of them.
\<close>

section \<open>The language of each lex state\<close>

text \<open>
  C4. In each of the 16 lex states of the language, \<open>ts_lex\<close> accepts a word as the token \<open>y\<close> exactly
  when \<open>y\<close> is the first of the state's tokens whose expression in \<open>grammar.js\<close> spells the word: the
  220 states of the table implement the 62 expressions, with no word lost and none added.
\<close>

theorem lex_state_language:
  assumes "q \<in> set lex_states"
  shows "accepts ts_lex_cases q w y \<longleftrightarrow> first_token (state_tokens q) w = Some y"
  by (rule lex_state_accepts[OF assms])

theorem lex_state_language_witness:
  "first_token (state_tokens 12) (map code ''16#F_F'') = Some sym_hex_int"
  by (subst lex_state_language[symmetric])
    (simp_all add: lex_states_value accepts_def accepting_def delta_def state_goto_def lex_lookup char_simps)

section \<open>A call\<close>

text \<open>The white space a lex state skips: all but the two of an address, which skip none.\<close>

definition skipped :: "TSStateId \<Rightarrow> code_point \<Rightarrow> bool" where
  "skipped q c \<longleftrightarrow> q < 218 \<and> blank c"

text \<open>What a state returns at the end of the input.\<close>

definition end_symbol :: "TSStateId \<Rightarrow> TSSymbol option" where
  "end_symbol q =
     (if q = 0 \<or> q = 63 then Some ts_builtin_sym_end
      else if q < 218 then None else Some sym_adress_identifier)"

definition longest_word ::
  "token_rexps \<Rightarrow> code_point list \<Rightarrow> TSSymbol \<Rightarrow> code_point list \<Rightarrow> bool" where
  "longest_word rs xs y e \<longleftrightarrow>
     (\<exists>w. xs = w @ e \<and> first_token rs w = Some y \<and>
       (\<forall>w' e'. xs = w' @ e' \<and> first_token rs w' \<noteq> None \<longrightarrow> length w' \<le> length w))"

lemma longest_token_word:
  assumes "q \<in> set lex_states"
  shows "longest_token ts_lex_cases q xs y e \<longleftrightarrow> longest_word (state_tokens q) xs y e"
  unfolding longest_token_def longest_word_def lex_state_accepts[OF assms] by simp

lemma blank_iff: "9 \<le> c \<and> c \<le> 13 \<or> c = 32 \<longleftrightarrow> blank c"
  by (simp add: blank_def)

lemma blank_no_start: "blank c \<Longrightarrow> \<not> identifier_start c"
  by (auto simp: blank_def identifier_start_ascii ascii_letter_def)

lemma lex_state_skips:
  assumes "q \<in> set lex_states"
  shows "skips ts_lex_cases q c \<longleftrightarrow> skipped q c"
proof (cases "q \<in> set word_states")
  case True
  then show ?thesis
    by (auto simp: word_state(1) skipped_def word_states_def)
next
  case False
  then consider "q = 15" | "q = 18" | "q = 19" | "q = 20" | "q = 218" | "q = 219"
    using assms by (auto simp: lex_states_value word_states_def)
  then show ?thesis
    by cases (auto simp: skips_def state_goto_def lex_lookup skipped_def blank_def code_values)
qed

lemma lex_state_end:
  assumes "q \<in> set lex_states"
  shows "end_token ts_lex_cases q = map_option (\<lambda>y. (y, [])) (end_symbol q)"
  using assms unfolding lex_states_value
  by (auto simp: end_token_def end_symbol_def state_goto_def accepting_def lex_lookup code_values
      identifier_start_def [symmetric] identifier_start_ascii ascii_letter_def simp del: One_nat_def)

lemma lex_state_scanned:
  assumes "lexer_contract L view" and "token_ready view s xs" and "q \<in> set lex_states"
  shows "scanned view (ts_lex L q s) y b e \<longleftrightarrow>
    b = dropWhile (skipped q) xs \<and>
    (if b = [] then end_symbol q = Some y \<and> e = [] else longest_word (state_tokens q) b y e)"
proof -
  have "(\<lambda>c. skips ts_lex_cases q c) = skipped q"
    using lex_state_skips[OF assms(3)] by blast
  then show ?thesis
    unfolding ts_lex_def
      start_lexer_scanned[OF assms(1) lex.lexer_table_axioms assms(2) lex_states_less[OF assms(3)]]
      longest_token_word[OF assms(3)] lex_state_end[OF assms(3)]
    by auto
qed

text \<open>
  C23. A token of a lex state is a word of the input: what \<open>ts_lex\<close> returns starts after the skipped
  white space and ends inside the input. In every state but the two of an address it is not empty
  unless it is the end of the input, so that reading a file token by token ends.
\<close>

theorem lex_state_makes_progress:
  assumes "lexer_contract L view" and "token_ready view s xs" and "q \<in> set lex_states"
    and "scanned view (ts_lex L q s) y b e"
  shows "\<exists>ws w. xs = ws @ w @ e \<and> b = w @ e \<and> list_all (skipped q) ws \<and>
    (q < 218 \<and> y \<noteq> ts_builtin_sym_end \<longrightarrow> w \<noteq> [])"
proof -
  note read = iffD1[OF lex_state_scanned[OF assms(1-3)] assms(4)]
  have start: "accepting ts_lex_cases q = None" if "q < 218"
    using that assms(3) lex.start_goto(1)[of q] by (auto simp: lex_states_value lex_starts_def)
  obtain w where w: "b = w @ e" "q < 218 \<and> y \<noteq> ts_builtin_sym_end \<longrightarrow> w \<noteq> []"
  proof (cases "b = []")
    case True
    with read that[of "[]"] show ?thesis
      by (auto simp: end_symbol_def split: if_splits)
  next
    case False
    with read obtain w where "b = w @ e" "first_token (state_tokens q) w = Some y"
      by (auto simp: longest_word_def)
    with start that[of w] show ?thesis
      using lex_state_accepts[OF assms(3), of "[]" y] by (cases "q < 218") (auto simp: accepts_Nil)
  qed
  moreover have "xs = takeWhile (skipped q) xs @ b"
    using read by simp
  moreover have "list_all (skipped q) (takeWhile (skipped q) xs)"
    by (auto simp: list_all_iff dest: set_takeWhileD)
  ultimately show ?thesis
    by metis
qed

lemma longest_word_whole: "first_token rs w = Some y \<Longrightarrow> longest_word rs w y []"
  unfolding longest_word_def by auto

lemma hex_word: "accepts ts_lex_cases 2 (map code ''16#F_F'') sym_hex_int"
  by (simp add: accepts_def accepting_def delta_def state_goto_def lex_lookup char_simps)

theorem lex_state_makes_progress_witness:
  "\<exists>ws w. map code ''  16#F_F'' = ws @ w @ [] \<and> map code ''16#F_F'' = w @ [] \<and>
     list_all (skipped 2) ws \<and> w \<noteq> []"
proof -
  have q: "2 \<in> set lex_states"
    by (simp add: lex_states_value)
  have "longest_word (state_tokens 2) (map code ''16#F_F'') sym_hex_int []"
    using hex_word lex_state_accepts[OF q] by (intro longest_word_whole) simp
  then have "scanned id (ts_lex buffer_lexer 2 (open_buffer (map code ''  16#F_F''))) sym_hex_int
      (map code ''16#F_F'') []"
    by (subst lex_state_scanned[OF buffer.lexer_contract_axioms token_ready_buffer q])
      (simp add: skipped_def char_simps)
  from lex_state_makes_progress[OF buffer.lexer_contract_axioms token_ready_buffer q this]
  show ?thesis
    by (simp add: token_numbers)
qed

section \<open>Characters that no token holds\<close>

primrec avoids :: "code_point \<Rightarrow> rexp \<Rightarrow> bool" where
  "avoids c Zero = True"
| "avoids c One = True"
| "avoids c (Chr a) = (\<not> in_set a c)"
| "avoids c (Seq r t) = (avoids c r \<and> avoids c t)"
| "avoids c (Alt r t) = (avoids c r \<and> avoids c t)"
| "avoids c (Star r) = avoids c r"

lemma avoids_word: "spells_rexp r w \<Longrightarrow> avoids c r \<Longrightarrow> c \<notin> set w"
  by (induction rule: spells_rexp.induct) auto

text \<open>The tokens that may hold white space: a comment to the end of the line, and the quoted ones.\<close>

definition spaced_tokens :: "TSSymbol list" where
  "spaced_tokens = [sym_line_comment, sym_pragma_string, sym_s_byte_char_str, sym_d_byte_char_str]"

lemma tokens_avoid_null: "list_all (\<lambda>(y, r). avoids 0 r) token_rexps"
  by (simp add: token_rexps_def token_rexps_parts rexp_values code_values
      identifier_start_ascii identifier_char_ascii ascii_letter_def)

lemma tokens_avoid_newline:
  "list_all (\<lambda>(y, r). if y = sym_pragma_string then True else avoids 10 r) token_rexps"
  by (simp add: token_rexps_def token_rexps_parts rexp_values code_values token_numbers
      identifier_start_ascii identifier_char_ascii ascii_letter_def)

lemma tokens_avoid_blanks:
  assumes "blank c"
  shows "list_all (\<lambda>(y, r). if List.member spaced_tokens y then True else avoids c r) token_rexps"
proof -
  have "c = 9 \<or> c = 10 \<or> c = 11 \<or> c = 12 \<or> c = 13 \<or> c = 32"
    using assms by (auto simp: blank_def)
  then show ?thesis
    by (elim disjE; simp add: token_rexps_def token_rexps_parts rexp_values code_values token_numbers
        spaced_tokens_def identifier_start_ascii identifier_char_ascii ascii_letter_def)
qed

lemma first_token_spells: "first_token rs w = Some y \<Longrightarrow> \<exists>r. (y, r) \<in> set rs \<and> spells_rexp r w"
  by (auto simp: first_token_iff)

lemma token_rexp_mem: "(y, r) \<in> set token_rexps \<Longrightarrow> token_rexp y = r"
  using token_rexp_entries by (auto simp: list_all_iff)

lemma state_token_listed:
  assumes "(y, r) \<in> set (state_tokens q)"
  shows "(y, r) \<in> set token_rexps"
proof -
  have "list_all (\<lambda>(q, ys). list_all (\<lambda>y. y \<in> fst ` set token_rexps) ys) lex_state_tokens"
    by (simp add: lex_state_tokens_def token_rexps_def token_rexps_parts)
  moreover from assms obtain ys where ys: "map_of lex_state_tokens q = Some ys" "y \<in> set ys" "r = token_rexp y"
    by (cases "map_of lex_state_tokens q") (auto simp: state_tokens_def)
  ultimately obtain r' where "(y, r') \<in> set token_rexps"
    using map_of_SomeD[OF ys(1)] by (fastforce simp: list_all_iff)
  with ys(3) token_rexp_mem show ?thesis
    by simp
qed

text \<open>
  C25. No token holds the null character; none but a pragma string a line break; and none but these,
  line comments and character strings any white space, so that what separates tokens is never part of
  one.
\<close>

theorem token_characters:
  assumes "q \<in> set lex_states" and "accepts ts_lex_cases q w y"
  shows "0 \<notin> set w \<and> (y \<noteq> sym_pragma_string \<longrightarrow> 10 \<notin> set w) \<and>
    (y \<notin> set spaced_tokens \<longrightarrow> list_all (\<lambda>c. \<not> blank c) w)"
proof -
  obtain r where r: "(y, r) \<in> set token_rexps" "spells_rexp r w"
    using assms lex_state_accepts first_token_spells state_token_listed by metis
  have "0 \<notin> set w"
    using tokens_avoid_null r avoids_word by (fastforce simp: list_all_iff)
  moreover have "10 \<notin> set w" if "y \<noteq> sym_pragma_string"
    using tokens_avoid_newline r that avoids_word by (fastforce simp: list_all_iff)
  moreover have "\<not> blank c" if "y \<notin> set spaced_tokens" "c \<in> set w" for c
    using tokens_avoid_blanks[of c] r that avoids_word[OF r(2), of c] by (fastforce simp: list_all_iff)
  ultimately show ?thesis
    by (auto simp: list_all_iff)
qed

theorem token_characters_witness:
  "list_all (\<lambda>c. \<not> blank c) (map code ''16#F_F'') \<and> sym_hex_int \<notin> set spaced_tokens"
proof -
  have "sym_hex_int \<notin> set spaced_tokens"
    by (simp add: spaced_tokens_def token_numbers)
  moreover have "2 \<in> set lex_states"
    by (simp add: lex_states_value)
  ultimately show ?thesis
    using token_characters[OF _ hex_word] by blast
qed

section \<open>Two tokens with one spelling\<close>

text \<open>The tokens of which nothing is left to read.\<close>

fun nullable_tokens :: "token_rexps \<Rightarrow> TSSymbol list" where
  "nullable_tokens [] = []"
| "nullable_tokens ((y, r) # rs) = (if nullable r then y # nullable_tokens rs else nullable_tokens rs)"

lemma nullable_tokens_iff: "y \<in> set (nullable_tokens rs) \<longleftrightarrow> (\<exists>r. (y, r) \<in> set rs \<and> nullable r)"
  by (induction rs rule: nullable_tokens.induct) auto

lemma cons_token_mem:
  "(\<exists>r. (y, r) \<in> set (cons_token x t rs) \<and> spells_rexp r w) \<longleftrightarrow>
     x = y \<and> spells_rexp t w \<or> (\<exists>r. (y, r) \<in> set rs \<and> spells_rexp r w)"
  by (cases t) auto

lemma derivs_mem:
  "(\<exists>r. (y, r) \<in> set (derivs c rs) \<and> spells_rexp r w) \<longleftrightarrow>
     (\<exists>r. (y, r) \<in> set rs \<and> spells_rexp r (c # w))"
  by (induction rs rule: derivs.induct) (auto simp: cons_token_mem spells_deriv)

text \<open>The tokens that spell a word are those nullable in the state it leads to.\<close>

lemma spellings_run:
  "q < 220 \<Longrightarrow> (\<exists>r. (y, r) \<in> set (left q) \<and> spells_rexp r w) \<longleftrightarrow>
     (\<exists>q'. run ts_lex_cases q w = Some q' \<and> y \<in> set (nullable_tokens (left q')))"
proof (induction w arbitrary: q)
  case Nil
  then show ?case by (auto simp: nullable_tokens_iff nullable_iff)
next
  case (Cons c w)
  then have "q \<in> {q. q < 220}" by simp
  note delta = tokens.left_delta[OF this, of c] tokens.left_states[OF this, of c]
  show ?case
    using delta Cons.IH
    by (cases "delta ts_lex_cases q c") (simp_all flip: derivs_mem)
qed

text \<open>The states after a letter of an address, in which an identifier may go on as well.\<close>

definition letter_states :: "TSStateId list" where
  "letter_states = [145, 146, 148, 149, 151, 152]"

definition address_letters :: "TSSymbol list" where
  "address_letters = [anon_sym_I, anon_sym_M, anon_sym_Q]"

lemma few_nullable:
  "list_all (\<lambda>(q, rs). if List.member letter_states q then True
     else length (nullable_tokens rs) \<le> 1) tokens_left"
  by (simp add: tokens_left_def tokens_left_parts letter_states_def rexp_values del: One_nat_def)

lemma letters_nullable:
  "list_all (\<lambda>(q, rs). if List.member letter_states q
     then list_ex (\<lambda>x. nullable_tokens rs = [x, sym_identifier] \<or>
       nullable_tokens rs = [x, sym_adress_identifier]) address_letters else True) tokens_left"
  by (simp add: tokens_left_def tokens_left_parts letter_states_def address_letters_def rexp_values)

lemma start_nullable: "list_all (\<lambda>(y, r). nullable r \<longrightarrow> y = sym_adress_identifier) token_rexps"
  by (simp add: token_rexps_def token_rexps_parts rexp_values)

lemma letter_words:
  "spells_rexp (token_rexp anon_sym_I) w \<longleftrightarrow> w = [code CHR ''I'']"
  "spells_rexp (token_rexp anon_sym_M) w \<longleftrightarrow> w = [code CHR ''M'']"
  "spells_rexp (token_rexp anon_sym_Q) w \<longleftrightarrow> w = [code CHR ''Q'']"
proof -
  have "token_rexp anon_sym_I = lit ''I''" "token_rexp anon_sym_M = lit ''M''"
    "token_rexp anon_sym_Q = lit ''Q''"
    using token_rexp_entries by (simp_all add: list_all_iff token_rexps_def punctuation_tokens_1_def)
  then show
    "spells_rexp (token_rexp anon_sym_I) w \<longleftrightarrow> w = [code CHR ''I'']"
    "spells_rexp (token_rexp anon_sym_M) w \<longleftrightarrow> w = [code CHR ''M'']"
    "spells_rexp (token_rexp anon_sym_Q) w \<longleftrightarrow> w = [code CHR ''Q'']"
    by (auto simp: lit_def chr_def)
qed

lemma left_cases: "q \<notin> set lex_states \<Longrightarrow> left q = [] \<or> (q, left q) \<in> set tokens_left"
  by (auto simp: left_def lex_states_def map_of_eq_None_iff[symmetric] dest: map_of_SomeD
      split: option.splits)

lemma first_nullable_mem: "first_nullable rs = Some y \<Longrightarrow> y \<in> set (nullable_tokens rs)"
proof (induction rs rule: first_nullable.induct)
  case (2 x r rs)
  then show ?case by (cases "nullable r") simp_all
qed simp

text \<open>Of several tokens nullable in a state, the first is a letter of an address and the others are not.\<close>

lemma first_nullable_tokens:
  "first_nullable rs = (case nullable_tokens rs of [] \<Rightarrow> None | y # ys \<Rightarrow> Some y)"
  by (induction rs rule: first_nullable.induct) auto

lemma several_nullable:
  assumes "first_nullable (left q) = Some x" and "y \<in> set (nullable_tokens (left q))" and "y \<noteq> x"
  shows "x \<in> set address_letters \<and> y \<notin> set address_letters"
proof (cases "q \<in> set lex_states")
  case True
  then have "z = sym_adress_identifier" if "z \<in> set (nullable_tokens (left q))" for z
    using that state_token_listed start_nullable
    by (fastforce simp: left_state_tokens nullable_tokens_iff list_all_iff)
  with assms show ?thesis
    by (metis first_nullable_mem)
next
  case False
  have "left q \<noteq> []"
    using assms(2) by auto
  with False have listed: "(q, left q) \<in> set tokens_left"
    using left_cases by blast
  obtain ys where "nullable_tokens (left q) = x # ys"
    using assms(1) by (auto simp: first_nullable_tokens split: list.splits)
  with assms(2,3) obtain z zs where tokens: "nullable_tokens (left q) = x # z # zs"
    by (cases ys) auto
  then have "q \<in> set letter_states"
    using few_nullable listed by (fastforce simp: list_all_iff split: if_splits)
  then have "\<exists>x' \<in> set address_letters. nullable_tokens (left q) = [x', sym_identifier] \<or>
      nullable_tokens (left q) = [x', sym_adress_identifier]"
    using letters_nullable listed by (fastforce simp: list_all_iff list_ex_iff)
  with tokens assms(2,3) show ?thesis
    by (auto simp: address_letters_def token_numbers)
qed

text \<open>The words a token of a lex state spells.\<close>

definition state_token_spells :: "TSStateId \<Rightarrow> TSSymbol \<Rightarrow> code_point list \<Rightarrow> bool" where
  "state_token_spells q y w \<longleftrightarrow> (\<exists>r. (y, r) \<in> set (state_tokens q) \<and> spells_rexp r w)"

lemma state_token_run:
  "q \<in> set lex_states \<Longrightarrow> state_token_spells q y w \<longleftrightarrow>
     (\<exists>q'. run ts_lex_cases q w = Some q' \<and> y \<in> set (nullable_tokens (left q')))"
  unfolding state_token_spells_def
  using spellings_run[OF lex_states_less, of q y w] by (simp add: left_state_tokens)

lemma run_state: "q < 220 \<Longrightarrow> run ts_lex_cases q w = Some q' \<Longrightarrow> q' < 220"
proof (induction w arbitrary: q)
  case (Cons c w)
  then show ?case
    using tokens.left_states[of q c] by (auto split: option.splits)
qed simp

lemma accepts_run:
  assumes "q \<in> set lex_states"
  shows "accepts ts_lex_cases q w y \<longleftrightarrow>
    (\<exists>q'. run ts_lex_cases q w = Some q' \<and> first_nullable (left q') = Some y)"
proof -
  have "accepting ts_lex_cases q' = first_nullable (left q')" if "run ts_lex_cases q w = Some q'" for q'
    using tokens.left_accepting[of q'] run_state[OF lex_states_less[OF assms] that] by simp
  then show ?thesis
    by (auto simp: accepts_def)
qed

lemma accepts_spelled:
  assumes "q \<in> set lex_states"
  shows "accepts ts_lex_cases q w y \<longleftrightarrow>
    state_token_spells q y w \<and> (\<forall>x \<in> set address_letters. state_token_spells q x w \<longrightarrow> y = x)"
  unfolding accepts_run[OF assms] state_token_run[OF assms]
proof (cases "run ts_lex_cases q w")
  case (Some q')
  show "(\<exists>q'. run ts_lex_cases q w = Some q' \<and> first_nullable (left q') = Some y) \<longleftrightarrow>
    (\<exists>q'. run ts_lex_cases q w = Some q' \<and> y \<in> set (nullable_tokens (left q'))) \<and>
    (\<forall>x \<in> set address_letters.
      (\<exists>q'. run ts_lex_cases q w = Some q' \<and> x \<in> set (nullable_tokens (left q'))) \<longrightarrow> y = x)"
  proof (cases "first_nullable (left q')")
    case None
    then show ?thesis
      using Some by (auto simp: first_nullable_tokens split: list.splits)
  next
    case (Some x)
    then show ?thesis
      using \<open>run ts_lex_cases q w = Some q'\<close> several_nullable[OF Some] first_nullable_mem[OF Some]
      by auto
  qed
qed simp

text \<open>
  C22. Which token a lex state reads does not depend on the order of its tokens, but for the letters
  \<open>I\<close>, \<open>M\<close> and \<open>Q\<close> of an address: \<open>ts_lex\<close> accepts a word as any token of the state whose expression in
  \<open>grammar.js\<close> spells it, and of two such tokens one is such a letter, which it prefers.
\<close>

theorem tokens_unambiguous:
  assumes "q \<in> set lex_states"
  shows "accepts ts_lex_cases q w y \<longleftrightarrow>
    state_token_spells q y w \<and>
    (\<forall>x \<in> {anon_sym_I, anon_sym_M, anon_sym_Q}. state_token_spells q x w \<longrightarrow> y = x)"
  using accepts_spelled[OF assms] by (simp add: address_letters_def)

lemma identifier_value: "token_rexp sym_identifier = Seq (Chr Id_Start) (Star (Chr Id_Char))"
  using token_rexp_entries by (simp add: list_all_iff token_rexps_def value_tokens_def)

lemma state_0_letters:
  "(anon_sym_Q, token_rexp anon_sym_Q) \<in> set (state_tokens 0)"
  "(sym_identifier, token_rexp sym_identifier) \<in> set (state_tokens 0)"
  by (simp_all add: state_tokens_def lex_state_tokens_def)

theorem tokens_unambiguous_witness:
  "state_token_spells 0 sym_identifier [code CHR ''Q''] \<and>
   accepts ts_lex_cases 0 [code CHR ''Q''] anon_sym_Q \<and>
   \<not> accepts ts_lex_cases 0 [code CHR ''Q''] sym_identifier"
proof -
  have spelled: "state_token_spells 0 anon_sym_Q [code CHR ''Q'']"
    unfolding state_token_spells_def using state_0_letters(1) letter_words(3) by blast
  have "spells_rexp (token_rexp sym_identifier) [code CHR ''Q'']"
    unfolding identifier_value
    by (simp add: spells_rexp_code deriv_def heads_then_def add_choice_def char_simps)
  then have other: "state_token_spells 0 sym_identifier [code CHR ''Q'']"
    unfolding state_token_spells_def using state_0_letters(2) by blast
  have no_other: "\<not> state_token_spells 0 x [code CHR ''Q'']" if "x \<in> {anon_sym_I, anon_sym_M}" for x
  proof
    assume "state_token_spells 0 x [code CHR ''Q'']"
    then have "spells_rexp (token_rexp x) [code CHR ''Q'']"
      unfolding state_token_spells_def using state_token_listed token_rexp_mem by metis
    with that show False
      by (auto simp: letter_words char_simps)
  qed
  have "0 \<in> set lex_states"
    by (simp add: lex_states_value)
  note reads = tokens_unambiguous[OF this, of "[code CHR ''Q'']"]
  show ?thesis
    using reads[of anon_sym_Q] reads[of sym_identifier] spelled other no_other
    by (auto simp: token_numbers)
qed

section \<open>Literals with a base\<close>

text \<open>
  The literals with a base that \<open>grammar.js\<close> means: the base and \<open>#\<close>, perhaps an
  underscore, a digit of the base, and then digits and underscores.
\<close>

definition base_prefix :: "TSSymbol \<Rightarrow> string" where
  "base_prefix y =
     (if y = sym_binary_int then ''2#'' else if y = sym_octal_int then ''8#'' else ''16#'')"

definition base_digit :: "TSSymbol \<Rightarrow> code_point \<Rightarrow> bool" where
  "base_digit y c \<longleftrightarrow>
     (if y = sym_binary_int then code CHR ''0'' \<le> c \<and> c \<le> code CHR ''1''
      else if y = sym_octal_int then code CHR ''0'' \<le> c \<and> c \<le> code CHR ''7''
      else code CHR ''0'' \<le> c \<and> c \<le> code CHR ''9'' \<or>
        code CHR ''a'' \<le> c \<and> c \<le> code CHR ''f'' \<or> code CHR ''A'' \<le> c \<and> c \<le> code CHR ''F'')"

definition digit_or_line :: "TSSymbol \<Rightarrow> code_point \<Rightarrow> bool" where
  "digit_or_line y c \<longleftrightarrow> c = code CHR ''_'' \<or> base_digit y c"

definition literal_with_base :: "TSSymbol \<Rightarrow> code_point list \<Rightarrow> bool" where
  "literal_with_base y w \<longleftrightarrow>
     (\<exists>d v. (w = map code (base_prefix y) @ d # v \<or> w = map code (base_prefix y) @ code CHR ''_'' # d # v) \<and>
       base_digit y d \<and> list_all (digit_or_line y) v)"

text \<open>The lex states that read them.\<close>

definition base_states :: "TSSymbol \<Rightarrow> TSStateId list" where
  "base_states y = (if y = sym_hex_int then [1, 2, 3, 4, 12, 63] else [0, 1, 2, 3, 4, 12])"

text \<open>The state each literal ends in and the characters it goes on with.\<close>

definition based_tokens :: "(TSSymbol \<times> TSStateId \<times> char_set) list" where
  "based_tokens =
    [(sym_binary_int, 95, In [(CHR ''_'', CHR ''_''), (CHR ''0'', CHR ''1'')]),
     (sym_octal_int, 96, In [(CHR ''_'', CHR ''_''), (CHR ''0'', CHR ''7'')]),
     (sym_hex_int, 97,
       In [(CHR ''_'', CHR ''_''), (CHR ''0'', CHR ''9''), (CHR ''a'', CHR ''f''), (CHR ''A'', CHR ''F'')])]"

lemma based_left: "list_all (\<lambda>(y, q, a). left q = [(y, Star (Chr a))]) based_tokens"
  by (simp add: based_tokens_def left_value)

lemma based_end:
  "list_all (\<lambda>(y, q, a). list_all (\<lambda>(p, rs).
     if List.member (nullable_tokens rs) y then p = q else True) tokens_left) based_tokens"
  by (simp add: based_tokens_def tokens_left_def tokens_left_parts rexp_values token_numbers)

lemma digit_sets:
  "in_set (In [(CHR ''_'', CHR ''_''), (CHR ''0'', CHR ''1'')]) = digit_or_line sym_binary_int"
  "in_set (In [(CHR ''_'', CHR ''_''), (CHR ''0'', CHR ''7'')]) = digit_or_line sym_octal_int"
  "in_set (In [(CHR ''_'', CHR ''_''), (CHR ''0'', CHR ''9''), (CHR ''a'', CHR ''f''),
     (CHR ''A'', CHR ''F'')]) = digit_or_line sym_hex_int"
  "in_set (In [(CHR ''0'', CHR ''1'')]) = base_digit sym_binary_int"
  "in_set (In [(CHR ''0'', CHR ''7'')]) = base_digit sym_octal_int"
  "in_set (In [(CHR ''0'', CHR ''9''), (CHR ''a'', CHR ''f''), (CHR ''A'', CHR ''F'')]) =
     base_digit sym_hex_int"
  by (auto simp: fun_eq_iff digit_or_line_def base_digit_def token_numbers)

lemma based_listed:
  assumes "y \<in> {sym_binary_int, sym_octal_int, sym_hex_int}"
  obtains p a where "(y, p, a) \<in> set based_tokens" "in_set a = digit_or_line y"
  using assms digit_sets that[of 95] that[of 96] that[of 97]
  by (auto simp: based_tokens_def simp del: in_set.simps)

lemma base_states_listed:
  "list_all (\<lambda>(q, ys). list_all (\<lambda>y. List.member ys y \<longleftrightarrow> List.member (base_states y) q)
     [sym_binary_int, sym_octal_int, sym_hex_int]) lex_state_tokens"
  by (simp add: lex_state_tokens_def base_states_def token_numbers)

lemma in_base_states:
  assumes "y \<in> {sym_binary_int, sym_octal_int, sym_hex_int}" and "q \<in> set lex_states"
  shows "(\<exists>r. (y, r) \<in> set (state_tokens q)) \<longleftrightarrow> q \<in> set (base_states y)"
proof -
  obtain ys where ys: "map_of lex_state_tokens q = Some ys" "(q, ys) \<in> set lex_state_tokens"
    using assms(2) by (metis lex_states_def map_of_SomeD map_of_eq_None_iff option.exhaust set_map)
  then have "y \<in> set ys \<longleftrightarrow> q \<in> set (base_states y)"
    using base_states_listed assms(1) by (fastforce simp: list_all_iff)
  with ys(1) show ?thesis
    by (auto simp: state_tokens_def)
qed

lemma spells_Star_Chr: "spells_rexp (Star (Chr a)) w \<longleftrightarrow> list_all (in_set a) w"
  by (induction w) (auto simp: spells_Star_Cons intro: spells_Star_Nil)

lemma spells_lit: "spells_rexp (lit xs) w \<longleftrightarrow> w = map code xs"
  unfolding lit_def
  by (induction xs arbitrary: w rule: induct_list012) (auto simp: chr_def spells_Seq_iff)

lemma spells_lit_Seq:
  "spells_rexp (Seq (lit xs) t) w \<longleftrightarrow> (\<exists>v. w = map code xs @ v \<and> spells_rexp t v)"
  unfolding spells_Seq_iff spells_lit by blast

lemma spells_Chr_Seq:
  "spells_rexp (Seq (Chr a) t) w \<longleftrightarrow> (\<exists>d v. w = d # v \<and> in_set a d \<and> spells_rexp t v)"
  unfolding spells_Seq_iff spells_simps by (metis append_Cons append_Nil)

lemma spells_opt_Seq:
  "spells_rexp (Seq (opt r) t) w \<longleftrightarrow> spells_rexp (Seq r t) w \<or> spells_rexp t w"
  unfolding spells_Seq_iff opt_def spells_simps by auto

lemma spells_based:
  "spells_rexp (based prefix firsts others) w \<longleftrightarrow>
     (\<exists>d v. (w = map code prefix @ d # v \<or> w = map code prefix @ code CHR ''_'' # d # v) \<and>
       in_set (In firsts) d \<and> list_all (in_set (In others)) v)"
proof -
  have "spells_rexp (based prefix firsts others) w \<longleftrightarrow>
      spells_rexp (Seq (lit prefix) (Seq (opt (lit ''_'')) (Seq (Chr (In firsts)) (Star (Chr (In others)))))) w"
    by (simp add: based_def spells_Seq_iff)
  also have "\<dots> \<longleftrightarrow> (\<exists>d v. (w = map code prefix @ d # v \<or> w = map code prefix @ code CHR ''_'' # d # v) \<and>
      in_set (In firsts) d \<and> list_all (in_set (In others)) v)"
    unfolding spells_lit_Seq spells_opt_Seq spells_Chr_Seq spells_Star_Chr by auto
  finally show ?thesis .
qed

lemma based_rexp_values:
  "token_rexp sym_binary_int =
     based ''2#'' [(CHR ''0'', CHR ''1'')] [(CHR ''_'', CHR ''_''), (CHR ''0'', CHR ''1'')]"
  "token_rexp sym_octal_int =
     based ''8#'' [(CHR ''0'', CHR ''7'')] [(CHR ''_'', CHR ''_''), (CHR ''0'', CHR ''7'')]"
  "token_rexp sym_hex_int =
     based ''16#'' [(CHR ''0'', CHR ''9''), (CHR ''a'', CHR ''f''), (CHR ''A'', CHR ''F'')]
       [(CHR ''_'', CHR ''_''), (CHR ''0'', CHR ''9''), (CHR ''a'', CHR ''f''), (CHR ''A'', CHR ''F'')]"
  using token_rexp_entries by (simp_all add: list_all_iff token_rexps_def number_tokens_def)

lemma based_rexp:
  assumes "y \<in> {sym_binary_int, sym_octal_int, sym_hex_int}"
  shows "spells_rexp (token_rexp y) w \<longleftrightarrow> literal_with_base y w"
proof -
  have tokens: "sym_octal_int \<noteq> sym_binary_int" "sym_hex_int \<noteq> sym_binary_int" "sym_hex_int \<noteq> sym_octal_int"
    by (simp_all add: token_numbers)
  from assms tokens show ?thesis
    by (elim insertE emptyE)
      (simp_all add: based_rexp_values spells_based literal_with_base_def base_prefix_def
        digit_sets del: in_set.simps)
qed

lemma accepts_based:
  assumes "q \<in> set lex_states" and "y \<in> {sym_binary_int, sym_octal_int, sym_hex_int}"
  shows "accepts ts_lex_cases q w y \<longleftrightarrow> q \<in> set (base_states y) \<and> literal_with_base y w"
proof -
  have rexp: "r = token_rexp x" if "(x, r) \<in> set (state_tokens q)" for x r
    using state_token_listed[OF that] token_rexp_mem by metis
  have "state_token_spells q y w \<longleftrightarrow> q \<in> set (base_states y) \<and> literal_with_base y w"
    unfolding state_token_spells_def in_base_states[OF assms(2,1), symmetric]
      based_rexp[OF assms(2), symmetric] using rexp by blast
  moreover have "\<not> state_token_spells q x w" if "x \<in> set address_letters" "literal_with_base y w" for x
  proof
    assume "state_token_spells q x w"
    then have "spells_rexp (token_rexp x) w"
      unfolding state_token_spells_def using rexp by blast
    then have "length w = 1"
      using that(1) by (auto simp: address_letters_def letter_words)
    with that(2) show False
      by (auto simp: literal_with_base_def base_prefix_def split: if_splits)
  qed
  ultimately show ?thesis
    using accepts_spelled[OF assms(1)] by blast
qed

lemma accepts_append:
  "run ts_lex_cases q u = Some p \<Longrightarrow> accepts ts_lex_cases q (u @ v) y \<longleftrightarrow> accepts ts_lex_cases p v y"
  by (simp add: accepts_def run_append)

lemma based_state:
  assumes "q \<in> set lex_states" and "(y, p, a) \<in> set based_tokens" and "accepts ts_lex_cases q w y"
  shows "run ts_lex_cases q w = Some p \<and> p < 220 \<and> left p = [(y, Star (Chr a))]"
proof -
  obtain q' where q': "run ts_lex_cases q w = Some q'" "accepting ts_lex_cases q' = Some y"
    using assms(3) by (auto simp: accepts_def)
  then have "q' < 220"
    using lex.lookup_less[of q'] by (auto simp: accepting_def split: option.splits)
  then have y: "y \<in> set (nullable_tokens (left q'))"
    using tokens.left_accepting[of q'] q'(2) first_nullable_mem by simp
  have other: "y \<noteq> sym_adress_identifier"
    using assms(2) by (auto simp: based_tokens_def token_numbers)
  have "q' \<notin> set lex_states"
    using y other state_token_listed start_nullable
    by (fastforce simp: left_state_tokens nullable_tokens_iff list_all_iff)
  with y have "(q', left q') \<in> set tokens_left"
    using left_cases by fastforce
  with y assms(2) have "q' = p"
    using based_end by (fastforce simp: list_all_iff)
  with q'(1) \<open>q' < 220\<close> assms(2) show ?thesis
    using based_left by (auto simp: list_all_iff)
qed

text \<open>After a literal, a digit or an underscore leads to a longer one, and no other character to a token.\<close>

lemma based_goes_on:
  assumes "q \<in> set lex_states" and "y \<in> {sym_binary_int, sym_octal_int, sym_hex_int}"
    and "accepts ts_lex_cases q w y"
  shows "accepts ts_lex_cases q (w @ [c]) y \<longleftrightarrow> digit_or_line y c"
    and "accepts ts_lex_cases q (w @ c # v) y' \<Longrightarrow> digit_or_line y c"
proof -
  obtain p a where a: "(y, p, a) \<in> set based_tokens" "in_set a = digit_or_line y"
    using based_listed[OF assms(2)] by blast
  have p: "run ts_lex_cases q w = Some p" "p < 220" "left p = [(y, Star (Chr a))]"
    using based_state[OF assms(1) a(1) assms(3)] by simp_all
  have goes_on: "accepts ts_lex_cases q (w @ v) y' \<longleftrightarrow> first_token [(y, Star (Chr a))] v = Some y'" for v y'
    using tokens.accepts_first_token[of p v y'] p(2,3) by (simp add: accepts_append[OF p(1)])
  show "accepts ts_lex_cases q (w @ [c]) y \<longleftrightarrow> digit_or_line y c"
    unfolding goes_on a(2)[symmetric]
    by (simp add: first_token_Cons first_token_Nil deriv_def heads_then_def add_choice_def)
  show "accepts ts_lex_cases q (w @ c # v) y' \<Longrightarrow> digit_or_line y c"
    unfolding goes_on a(2)[symmetric]
    by (rule ccontr) (simp add: first_token_Cons deriv_def heads_then_def)
qed

lemma longest_word_based:
  assumes "q \<in> set lex_states" and "y \<in> {sym_binary_int, sym_octal_int, sym_hex_int}"
  shows "longest_word (state_tokens q) b y e \<longleftrightarrow>
    (\<exists>w. b = w @ e \<and> accepts ts_lex_cases q w y \<and> (e = [] \<or> \<not> digit_or_line y (hd e)))"
    (is "?longest \<longleftrightarrow> ?literal")
proof
  note token = lex_state_accepts[OF assms(1), symmetric]
  assume ?longest
  then obtain w where w: "b = w @ e" "accepts ts_lex_cases q w y"
      "\<And>w' e' y'. b = w' @ e' \<Longrightarrow> accepts ts_lex_cases q w' y' \<Longrightarrow> length w' \<le> length w"
    unfolding longest_word_def token by (auto simp: lex_state_accepts[OF assms(1)])
  have "\<not> digit_or_line y c" if "e = c # e'" for c e'
    using w(3)[of "w @ [c]" e' y] w(1) that based_goes_on(1)[OF assms w(2), of c] by auto
  with w(1,2) show ?literal
    by (cases e) auto
next
  assume ?literal
  then obtain w where w: "b = w @ e" "accepts ts_lex_cases q w y" "e = [] \<or> \<not> digit_or_line y (hd e)"
    by blast
  have "length w' \<le> length w" if split: "b = w' @ e'" and found: "accepts ts_lex_cases q w' y'" for w' e' y'
  proof (rule ccontr)
    assume "\<not> length w' \<le> length w"
    with split w(1) obtain c v where "w' = w @ c # v" "e = c # v @ e'"
      by (auto simp: append_eq_append_conv2 append_eq_Cons_conv neq_Nil_conv)
    with found w(3) based_goes_on(2)[OF assms w(2)] show False
      by auto
  qed
  with w(1,2) show ?longest
    unfolding longest_word_def by (auto simp: lex_state_accepts[OF assms(1)])
qed

text \<open>
  C24. What \<open>ts_lex\<close> reads as a literal with base 2, 8 or 16: after the white space, in the states that
  have the token, the base, \<open>#\<close> and the digits and underscores after it, all of them up to the end of
  the input or the first other character; so \<open>8#78\<close> ends before the last 8, and the colon of a \<open>CASE\<close>
  label is never taken with the literal before it.
\<close>

theorem based_literal_ends:
  assumes "lexer_contract L view" and "token_ready view s xs" and "q \<in> set lex_states"
    and "y \<in> {sym_binary_int, sym_octal_int, sym_hex_int}"
  shows "scanned view (ts_lex L q s) y b e \<longleftrightarrow>
    b = dropWhile (skipped q) xs \<and> q \<in> set (base_states y) \<and>
    (\<exists>w. b = w @ e \<and> literal_with_base y w \<and> (e = [] \<or> \<not> digit_or_line y (hd e)))"
proof -
  have "y \<notin> {ts_builtin_sym_end, sym_adress_identifier}"
    using assms(4) by (auto simp: token_numbers)
  then have "end_symbol q \<noteq> Some y"
    by (auto simp: end_symbol_def split: if_splits)
  moreover have "\<not> literal_with_base y []"
    by (simp add: literal_with_base_def)
  ultimately show ?thesis
    unfolding lex_state_scanned[OF assms(1-3)] longest_word_based[OF assms(3,4)] accepts_based[OF assms(3,4)]
    by auto
qed

theorem based_literal_ends_witness:
  "scanned id (ts_lex buffer_lexer 2 (open_buffer (map code ''  16#_FF: x''))) sym_hex_int
     (map code ''16#_FF: x'') (map code '': x'') \<and>
   \<not> scanned id (ts_lex buffer_lexer 2 (open_buffer (map code ''8#78''))) sym_octal_int (map code ''8#78'') []"
proof -
  note reads = based_literal_ends[OF buffer.lexer_contract_axioms token_ready_buffer]
  have q: "2 \<in> set lex_states"
    by (simp add: lex_states_value)
  have tokens: "sym_octal_int \<noteq> sym_binary_int" "sym_hex_int \<noteq> sym_binary_int" "sym_hex_int \<noteq> sym_octal_int"
    by (simp_all add: token_numbers)
  have "literal_with_base sym_hex_int (map code ''16#_FF'')"
    unfolding literal_with_base_def
    by (rule exI[of _ "code CHR ''F''"], rule exI[of _ "[code CHR ''F'']"])
      (simp add: base_prefix_def digit_or_line_def base_digit_def tokens char_simps)
  then have hex: "scanned id (ts_lex buffer_lexer 2 (open_buffer (map code ''  16#_FF: x''))) sym_hex_int
      (map code ''16#_FF: x'') (map code '': x'')"
    by (subst reads[OF q])
      (auto simp: base_states_def skipped_def blank_def digit_or_line_def base_digit_def tokens char_simps
        intro!: exI[of _ "map code ''16#_FF''"])
  have "\<not> literal_with_base sym_octal_int (map code ''8#78'')"
    by (auto simp: literal_with_base_def base_prefix_def digit_or_line_def base_digit_def tokens char_simps)
  with hex show ?thesis
    by (subst (2) reads[OF q]) auto
qed

end
