(* ===== verification/Field_Tables.thy ===== *)
theory Field_Tables
  imports Symbol_Tables
begin

text \<open>
  The fields of the nodes of a tree, from \<open>src/crates/tree-sitter/src/parser.c\<close>: their numbers and
  names, for each production the slice of the field map that says which child has which field, and
  the names its children are shown under.
\<close>

section \<open>Fields\<close>

definition field_IQM :: TSFieldId where "field_IQM = 1"
definition field_SUPER :: TSFieldId where "field_SUPER = 2"
definition field_THIS :: TSFieldId where "field_THIS = 3"
definition field__override :: TSFieldId where "field__override = 4"
definition field_access :: TSFieldId where "field_access = 5"
definition field_access_decls :: TSFieldId where "field_access_decls = 6"
definition field_adress :: TSFieldId where "field_adress = 7"
definition field_attributes :: TSFieldId where "field_attributes = 8"
definition field_body :: TSFieldId where "field_body = 9"
definition field_case_cond :: TSFieldId where "field_case_cond = 10"
definition field_case_do :: TSFieldId where "field_case_do = 11"
definition field_case_of :: TSFieldId where "field_case_of = 12"
definition field_case_selection :: TSFieldId where "field_case_selection = 13"
definition field_clause :: TSFieldId where "field_clause = 14"
definition field_config_init :: TSFieldId where "field_config_init = 15"
definition field_configuration_elements :: TSFieldId where "field_configuration_elements = 16"
definition field_constant :: TSFieldId where "field_constant = 17"
definition field_constant_or_retain :: TSFieldId where "field_constant_or_retain = 18"
definition field_control_list :: TSFieldId where "field_control_list = 19"
definition field_control_variable :: TSFieldId where "field_control_variable = 20"
definition field_data_type :: TSFieldId where "field_data_type = 21"
definition field_declarations :: TSFieldId where "field_declarations = 22"
definition field_default :: TSFieldId where "field_default = 23"
definition field_dimensions :: TSFieldId where "field_dimensions = 24"
definition field_direct :: TSFieldId where "field_direct = 25"
definition field_direction :: TSFieldId where "field_direction = 26"
definition field_directives :: TSFieldId where "field_directives = 27"
definition field_edge :: TSFieldId where "field_edge = 28"
definition field_elem_type :: TSFieldId where "field_elem_type = 29"
definition field_elements :: TSFieldId where "field_elements = 30"
definition field_else_body :: TSFieldId where "field_else_body = 31"
definition field_else_if :: TSFieldId where "field_else_if = 32"
definition field_else_if_body :: TSFieldId where "field_else_if_body = 33"
definition field_else_if_cond :: TSFieldId where "field_else_if_cond = 34"
definition field_end_value :: TSFieldId where "field_end_value = 35"
definition field_enum_path :: TSFieldId where "field_enum_path = 36"
definition field_expr :: TSFieldId where "field_expr = 37"
definition field_extends :: TSFieldId where "field_extends = 38"
definition field_extra :: TSFieldId where "field_extra = 39"
definition field_first :: TSFieldId where "field_first = 40"
definition field_function :: TSFieldId where "field_function = 41"
definition field_global_variables :: TSFieldId where "field_global_variables = 42"
definition field_if_body :: TSFieldId where "field_if_body = 43"
definition field_if_cond :: TSFieldId where "field_if_cond = 44"
definition field_implements :: TSFieldId where "field_implements = 45"
definition field_index :: TSFieldId where "field_index = 46"
definition field_init :: TSFieldId where "field_init = 47"
definition field_initial_value :: TSFieldId where "field_initial_value = 48"
definition field_instruction :: TSFieldId where "field_instruction = 49"
definition field_int :: TSFieldId where "field_int = 50"
definition field_internal :: TSFieldId where "field_internal = 51"
definition field_interval :: TSFieldId where "field_interval = 52"
definition field_invocation :: TSFieldId where "field_invocation = 53"
definition field_kind :: TSFieldId where "field_kind = 54"
definition field_left :: TSFieldId where "field_left = 55"
definition field_length :: TSFieldId where "field_length = 56"
definition field_level :: TSFieldId where "field_level = 57"
definition field_located :: TSFieldId where "field_located = 58"
definition field_located_at :: TSFieldId where "field_located_at = 59"
definition field_lower :: TSFieldId where "field_lower = 60"
definition field_message :: TSFieldId where "field_message = 61"
definition field_method :: TSFieldId where "field_method = 62"
definition field_methods :: TSFieldId where "field_methods = 63"
definition field_modifier :: TSFieldId where "field_modifier = 64"
definition field_module :: TSFieldId where "field_module = 65"
definition field_multibits :: TSFieldId where "field_multibits = 66"
definition field_name :: TSFieldId where "field_name = 67"
definition field_not :: TSFieldId where "field_not = 68"
definition field_offset :: TSFieldId where "field_offset = 69"
definition field_operator :: TSFieldId where "field_operator = 70"
definition field_overlap :: TSFieldId where "field_overlap = 71"
definition field_param :: TSFieldId where "field_param = 72"
definition field_params :: TSFieldId where "field_params = 73"
definition field_path :: TSFieldId where "field_path = 74"
definition field_pragmas :: TSFieldId where "field_pragmas = 75"
definition field_priority :: TSFieldId where "field_priority = 76"
definition field_prototype :: TSFieldId where "field_prototype = 77"
definition field_qualifier :: TSFieldId where "field_qualifier = 78"
definition field_range :: TSFieldId where "field_range = 79"
definition field_ranges :: TSFieldId where "field_ranges = 80"
definition field_ref_count :: TSFieldId where "field_ref_count = 81"
definition field_repeat_body :: TSFieldId where "field_repeat_body = 82"
definition field_repeat_cond :: TSFieldId where "field_repeat_cond = 83"
definition field_resource :: TSFieldId where "field_resource = 84"
definition field_resource_type_name :: TSFieldId where "field_resource_type_name = 85"
definition field_resources :: TSFieldId where "field_resources = 86"
definition field_result :: TSFieldId where "field_result = 87"
definition field_retain :: TSFieldId where "field_retain = 88"
definition field_return_type :: TSFieldId where "field_return_type = 89"
definition field_right :: TSFieldId where "field_right = 90"
definition field_rule :: TSFieldId where "field_rule = 91"
definition field_sign :: TSFieldId where "field_sign = 92"
definition field_single :: TSFieldId where "field_single = 93"
definition field_spec :: TSFieldId where "field_spec = 94"
definition field_spec_init :: TSFieldId where "field_spec_init = 95"
definition field_step :: TSFieldId where "field_step = 96"
definition field_target :: TSFieldId where "field_target = 97"
definition field_task :: TSFieldId where "field_task = 98"
definition field_type :: TSFieldId where "field_type = 99"
definition field_type_ref :: TSFieldId where "field_type_ref = 100"
definition field_upper :: TSFieldId where "field_upper = 101"
definition field_value :: TSFieldId where "field_value = 102"
definition field_values :: TSFieldId where "field_values = 103"
definition field_var :: TSFieldId where "field_var = 104"
definition field_variable :: TSFieldId where "field_variable = 105"
definition field_variable_name :: TSFieldId where "field_variable_name = 106"
definition field_variables :: TSFieldId where "field_variables = 107"
definition field_while_body :: TSFieldId where "field_while_body = 108"
definition field_while_cond :: TSFieldId where "field_while_cond = 109"

definition FIELD_COUNT :: nat where "FIELD_COUNT = 109"

lemmas field_numbers =
  field_IQM_def field_SUPER_def field_THIS_def field__override_def field_access_def
  field_access_decls_def field_adress_def field_attributes_def field_body_def field_case_cond_def
  field_case_do_def field_case_of_def field_case_selection_def field_clause_def
  field_config_init_def field_configuration_elements_def field_constant_def
  field_constant_or_retain_def field_control_list_def field_control_variable_def
  field_data_type_def field_declarations_def field_default_def field_dimensions_def
  field_direct_def field_direction_def field_directives_def field_edge_def field_elem_type_def
  field_elements_def field_else_body_def field_else_if_def field_else_if_body_def
  field_else_if_cond_def field_end_value_def field_enum_path_def field_expr_def field_extends_def
  field_extra_def field_first_def field_function_def field_global_variables_def field_if_body_def
  field_if_cond_def field_implements_def field_index_def field_init_def field_initial_value_def
  field_instruction_def field_int_def field_internal_def field_interval_def field_invocation_def
  field_kind_def field_left_def field_length_def field_level_def field_located_def
  field_located_at_def field_lower_def field_message_def field_method_def field_methods_def
  field_modifier_def field_module_def field_multibits_def field_name_def field_not_def
  field_offset_def field_operator_def field_overlap_def field_param_def field_params_def
  field_path_def field_pragmas_def field_priority_def field_prototype_def field_qualifier_def
  field_range_def field_ranges_def field_ref_count_def field_repeat_body_def field_repeat_cond_def
  field_resource_def field_resource_type_name_def field_resources_def field_result_def
  field_retain_def field_return_type_def field_right_def field_rule_def field_sign_def
  field_single_def field_spec_def field_spec_init_def field_step_def field_target_def
  field_task_def field_type_def field_type_ref_def field_upper_def field_value_def
  field_values_def field_var_def field_variable_def field_variable_name_def field_variables_def
  field_while_body_def field_while_cond_def

text \<open>Lines 4399 to 4507.\<close>

definition field_name_entries :: "(TSFieldId \<times> string) list" where
  "field_name_entries =
    [(field_IQM, ''IQM''), (field_SUPER, ''SUPER''), (field_THIS, ''THIS''),
     (field__override, ''_override''), (field_access, ''access''),
     (field_access_decls, ''access_decls''), (field_adress, ''adress''),
     (field_attributes, ''attributes''), (field_body, ''body''), (field_case_cond, ''case_cond''),
     (field_case_do, ''case_do''), (field_case_of, ''case_of''),
     (field_case_selection, ''case_selection''), (field_clause, ''clause''),
     (field_config_init, ''config_init''),
     (field_configuration_elements, ''configuration_elements''), (field_constant, ''constant''),
     (field_constant_or_retain, ''constant_or_retain''), (field_control_list, ''control_list''),
     (field_control_variable, ''control_variable''), (field_data_type, ''data_type''),
     (field_declarations, ''declarations''), (field_default, ''default''),
     (field_dimensions, ''dimensions''), (field_direct, ''direct''),
     (field_direction, ''direction''), (field_directives, ''directives''), (field_edge, ''edge''),
     (field_elem_type, ''elem_type''), (field_elements, ''elements''),
     (field_else_body, ''else_body''), (field_else_if, ''else_if''),
     (field_else_if_body, ''else_if_body''), (field_else_if_cond, ''else_if_cond''),
     (field_end_value, ''end_value''), (field_enum_path, ''enum_path''), (field_expr, ''expr''),
     (field_extends, ''extends''), (field_extra, ''extra''), (field_first, ''first''),
     (field_function, ''function''), (field_global_variables, ''global_variables''),
     (field_if_body, ''if_body''), (field_if_cond, ''if_cond''), (field_implements, ''implements''),
     (field_index, ''index''), (field_init, ''init''), (field_initial_value, ''initial_value''),
     (field_instruction, ''instruction''), (field_int, ''int''), (field_internal, ''internal''),
     (field_interval, ''interval''), (field_invocation, ''invocation''), (field_kind, ''kind''),
     (field_left, ''left''), (field_length, ''length''), (field_level, ''level''),
     (field_located, ''located''), (field_located_at, ''located_at''), (field_lower, ''lower''),
     (field_message, ''message''), (field_method, ''method''), (field_methods, ''methods''),
     (field_modifier, ''modifier''), (field_module, ''module''), (field_multibits, ''multibits''),
     (field_name, ''name''), (field_not, ''not''), (field_offset, ''offset''),
     (field_operator, ''operator''), (field_overlap, ''overlap''), (field_param, ''param''),
     (field_params, ''params''), (field_path, ''path''), (field_pragmas, ''pragmas''),
     (field_priority, ''priority''), (field_prototype, ''prototype''),
     (field_qualifier, ''qualifier''), (field_range, ''range''), (field_ranges, ''ranges''),
     (field_ref_count, ''ref_count''), (field_repeat_body, ''repeat_body''),
     (field_repeat_cond, ''repeat_cond''), (field_resource, ''resource''),
     (field_resource_type_name, ''resource_type_name''), (field_resources, ''resources''),
     (field_result, ''result''), (field_retain, ''retain''), (field_return_type, ''return_type''),
     (field_right, ''right''), (field_rule, ''rule''), (field_sign, ''sign''),
     (field_single, ''single''), (field_spec, ''spec''), (field_spec_init, ''spec_init''),
     (field_step, ''step''), (field_target, ''target''), (field_task, ''task''),
     (field_type, ''type''), (field_type_ref, ''type_ref''), (field_upper, ''upper''),
     (field_value, ''value''), (field_values, ''values''), (field_var, ''var''),
     (field_variable, ''variable''), (field_variable_name, ''variable_name''),
     (field_variables, ''variables''), (field_while_body, ''while_body''),
     (field_while_cond, ''while_cond'')]"

definition ts_field_names :: "string option list" where
  "ts_field_names =
     designated_unsized None ((0, None) # map (map_prod id Some) field_name_entries)"

section \<open>The slices of the productions\<close>

definition PRODUCTION_ID_COUNT :: nat where "PRODUCTION_ID_COUNT = 2855"

text \<open>Lines 4511 to 4660.\<close>

definition ts_field_map_slices_1 :: "(nat \<times> TSMapSlice) list" where
  "ts_field_map_slices_1 =
    [(2, Slice 0 1), (3, Slice 1 1), (4, Slice 2 1), (5, Slice 3 1), (7, Slice 4 1), (8, Slice 5 1),
     (9, Slice 6 1), (10, Slice 7 1), (11, Slice 8 1), (12, Slice 9 1), (13, Slice 10 1),
     (14, Slice 11 2), (16, Slice 13 2), (17, Slice 15 1), (18, Slice 16 1), (19, Slice 17 1),
     (20, Slice 18 1), (21, Slice 19 2), (22, Slice 21 2), (23, Slice 23 2), (25, Slice 25 2),
     (26, Slice 27 2), (27, Slice 29 2), (28, Slice 31 2), (29, Slice 33 2), (30, Slice 35 2),
     (31, Slice 37 2), (32, Slice 39 2), (33, Slice 41 2), (34, Slice 43 5), (35, Slice 48 8),
     (36, Slice 56 2), (37, Slice 58 2), (38, Slice 60 2), (39, Slice 62 2), (40, Slice 64 2),
     (41, Slice 66 3), (42, Slice 69 1), (43, Slice 70 2), (44, Slice 72 2), (45, Slice 72 2),
     (46, Slice 74 1), (47, Slice 75 2), (48, Slice 77 2), (49, Slice 79 1), (50, Slice 80 2),
     (51, Slice 82 1), (52, Slice 83 2), (53, Slice 85 1), (54, Slice 86 2), (55, Slice 88 2),
     (56, Slice 90 1), (57, Slice 91 2), (58, Slice 93 1), (59, Slice 94 1), (60, Slice 95 1),
     (61, Slice 96 1), (62, Slice 97 2), (63, Slice 99 3), (64, Slice 102 3), (65, Slice 105 3),
     (66, Slice 108 3), (67, Slice 111 3), (68, Slice 114 3), (69, Slice 117 3), (70, Slice 120 3),
     (71, Slice 123 3), (72, Slice 126 3), (73, Slice 129 2), (74, Slice 131 2), (75, Slice 133 2),
     (76, Slice 135 2), (77, Slice 137 2), (78, Slice 139 2), (79, Slice 141 3), (80, Slice 144 3),
     (81, Slice 147 3), (82, Slice 150 3), (83, Slice 153 3), (84, Slice 156 3), (85, Slice 159 2),
     (86, Slice 161 3), (87, Slice 164 3), (88, Slice 167 3), (89, Slice 170 2), (90, Slice 172 3),
     (91, Slice 175 2), (92, Slice 177 3), (93, Slice 180 3), (94, Slice 183 3), (95, Slice 186 3),
     (96, Slice 189 3), (97, Slice 192 3), (98, Slice 195 3), (99, Slice 198 3), (100, Slice 201 3),
     (101, Slice 204 3), (102, Slice 207 1), (103, Slice 208 1), (104, Slice 209 1),
     (105, Slice 97 2), (106, Slice 210 3), (107, Slice 213 3), (108, Slice 216 3),
     (109, Slice 219 1), (110, Slice 220 1), (111, Slice 221 2), (112, Slice 223 3),
     (113, Slice 226 2), (114, Slice 228 2), (115, Slice 230 2), (116, Slice 232 2),
     (131, Slice 234 2), (132, Slice 236 1), (133, Slice 237 2), (134, Slice 239 2),
     (135, Slice 241 2), (136, Slice 243 2), (137, Slice 245 3), (138, Slice 248 1),
     (139, Slice 249 1), (140, Slice 250 2), (141, Slice 252 1), (142, Slice 253 1),
     (143, Slice 254 1), (144, Slice 255 2), (145, Slice 257 2), (146, Slice 259 1),
     (147, Slice 260 1), (148, Slice 261 4), (149, Slice 265 3), (150, Slice 268 4),
     (151, Slice 272 4), (152, Slice 276 4), (153, Slice 280 3), (154, Slice 283 3),
     (155, Slice 286 3), (156, Slice 289 3), (157, Slice 292 3), (158, Slice 295 3),
     (159, Slice 298 4), (160, Slice 302 4), (161, Slice 306 4), (162, Slice 310 4),
     (163, Slice 314 4), (164, Slice 318 4), (165, Slice 322 3), (166, Slice 325 3),
     (167, Slice 328 3), (168, Slice 331 3)]"

text \<open>Lines 4661 to 4810.\<close>

definition ts_field_map_slices_2 :: "(nat \<times> TSMapSlice) list" where
  "ts_field_map_slices_2 =
    [(169, Slice 334 3), (170, Slice 337 3), (171, Slice 340 3), (172, Slice 343 3),
     (173, Slice 346 2), (174, Slice 348 2), (175, Slice 350 2), (176, Slice 352 2),
     (177, Slice 354 2), (178, Slice 356 3), (179, Slice 359 3), (180, Slice 362 3),
     (181, Slice 365 3), (182, Slice 368 3), (183, Slice 371 2), (184, Slice 373 2),
     (185, Slice 375 2), (186, Slice 377 3), (187, Slice 380 3), (188, Slice 383 4),
     (189, Slice 387 3), (190, Slice 390 4), (191, Slice 394 4), (192, Slice 398 3),
     (193, Slice 401 3), (194, Slice 404 3), (195, Slice 407 3), (196, Slice 410 3),
     (197, Slice 413 4), (198, Slice 417 4), (199, Slice 421 4), (200, Slice 425 3),
     (201, Slice 428 3), (202, Slice 431 3), (203, Slice 434 2), (204, Slice 436 3),
     (205, Slice 439 3), (206, Slice 442 3), (207, Slice 445 3), (208, Slice 448 4),
     (209, Slice 452 3), (210, Slice 455 1), (211, Slice 456 3), (212, Slice 459 2),
     (213, Slice 461 4), (214, Slice 465 3), (215, Slice 468 4), (216, Slice 472 4),
     (217, Slice 476 4), (218, Slice 480 4), (219, Slice 484 4), (220, Slice 488 4),
     (221, Slice 492 4), (222, Slice 496 4), (223, Slice 500 4), (224, Slice 504 4),
     (225, Slice 508 3), (226, Slice 511 3), (227, Slice 514 3), (228, Slice 517 3),
     (229, Slice 520 3), (230, Slice 523 3), (231, Slice 526 4), (232, Slice 530 4),
     (233, Slice 534 4), (234, Slice 538 4), (235, Slice 542 1), (236, Slice 543 1),
     (237, Slice 544 2), (238, Slice 546 2), (239, Slice 548 4), (240, Slice 552 4),
     (241, Slice 556 4), (242, Slice 560 2), (243, Slice 562 2), (244, Slice 564 2),
     (245, Slice 566 1), (246, Slice 567 2), (247, Slice 569 2), (248, Slice 571 3),
     (249, Slice 574 3), (250, Slice 577 3), (251, Slice 580 3), (252, Slice 583 3),
     (253, Slice 586 3), (254, Slice 589 3), (255, Slice 592 3), (256, Slice 595 1),
     (257, Slice 596 2), (258, Slice 598 2), (259, Slice 600 1), (260, Slice 601 2),
     (261, Slice 603 3), (262, Slice 606 2), (263, Slice 608 2), (264, Slice 610 1),
     (265, Slice 611 2), (266, Slice 613 3), (267, Slice 616 3), (268, Slice 619 3),
     (269, Slice 622 3), (270, Slice 625 4), (271, Slice 629 4), (272, Slice 633 4),
     (273, Slice 637 5), (274, Slice 642 4), (275, Slice 646 4), (276, Slice 650 4),
     (277, Slice 654 4), (278, Slice 658 4), (279, Slice 662 4), (280, Slice 666 4),
     (281, Slice 670 4), (282, Slice 674 3), (283, Slice 677 3), (284, Slice 680 3),
     (285, Slice 683 4), (286, Slice 687 4), (287, Slice 691 4), (288, Slice 695 4),
     (289, Slice 699 4), (290, Slice 703 3), (291, Slice 706 3), (292, Slice 709 3),
     (293, Slice 712 4), (294, Slice 716 4), (295, Slice 720 5), (296, Slice 725 4),
     (297, Slice 729 5), (298, Slice 734 5), (299, Slice 739 5), (300, Slice 744 4),
     (301, Slice 748 3), (302, Slice 751 4), (303, Slice 755 4), (304, Slice 759 4),
     (305, Slice 763 4), (306, Slice 767 4), (307, Slice 771 3), (308, Slice 774 3),
     (309, Slice 777 3), (310, Slice 780 4), (311, Slice 784 3), (312, Slice 787 3),
     (313, Slice 790 4), (314, Slice 794 4), (315, Slice 798 4), (316, Slice 802 4),
     (317, Slice 806 4), (318, Slice 810 3)]"

text \<open>Lines 4811 to 4960.\<close>

definition ts_field_map_slices_3 :: "(nat \<times> TSMapSlice) list" where
  "ts_field_map_slices_3 =
    [(319, Slice 813 3), (320, Slice 816 3), (321, Slice 819 4), (322, Slice 823 3),
     (323, Slice 826 3), (324, Slice 829 3), (325, Slice 832 3), (326, Slice 835 3),
     (327, Slice 838 3), (328, Slice 841 3), (329, Slice 844 3), (330, Slice 847 3),
     (331, Slice 850 4), (332, Slice 854 3), (333, Slice 857 4), (334, Slice 861 4),
     (335, Slice 865 4), (336, Slice 869 2), (337, Slice 871 2), (338, Slice 873 3),
     (339, Slice 876 3), (340, Slice 879 3), (341, Slice 882 3), (342, Slice 885 3),
     (343, Slice 888 2), (344, Slice 890 2), (345, Slice 892 2), (346, Slice 894 3),
     (347, Slice 897 3), (348, Slice 900 4), (349, Slice 904 4), (350, Slice 908 5),
     (351, Slice 913 4), (352, Slice 917 4), (353, Slice 921 4), (354, Slice 925 4),
     (355, Slice 929 4), (356, Slice 933 3), (357, Slice 936 3), (358, Slice 939 4),
     (359, Slice 943 3), (360, Slice 946 3), (361, Slice 949 4), (362, Slice 953 4),
     (363, Slice 957 4), (364, Slice 961 4), (365, Slice 965 5), (366, Slice 970 4),
     (367, Slice 974 3), (368, Slice 977 4), (369, Slice 981 3), (370, Slice 984 3),
     (371, Slice 987 3), (372, Slice 990 3), (373, Slice 993 2), (374, Slice 995 4),
     (375, Slice 999 4), (376, Slice 1003 4), (377, Slice 1007 4), (378, Slice 1011 3),
     (379, Slice 1014 3), (380, Slice 1017 4), (381, Slice 1021 3), (382, Slice 1024 3),
     (383, Slice 1027 3), (384, Slice 1030 2), (385, Slice 1032 2), (386, Slice 1034 4),
     (387, Slice 1038 3), (388, Slice 1041 3), (389, Slice 1044 2), (390, Slice 1046 4),
     (391, Slice 1050 4), (392, Slice 1054 4), (393, Slice 1058 5), (394, Slice 1063 4),
     (395, Slice 1067 5), (396, Slice 1072 5), (397, Slice 1077 5), (398, Slice 1082 4),
     (399, Slice 1086 4), (400, Slice 1090 4), (401, Slice 1094 4), (402, Slice 1098 4),
     (403, Slice 1102 4), (404, Slice 1106 5), (405, Slice 1111 5), (406, Slice 1116 5),
     (407, Slice 1121 5), (408, Slice 1126 5), (409, Slice 1131 5), (410, Slice 1136 4),
     (411, Slice 1140 4), (412, Slice 1144 4), (413, Slice 1148 4), (414, Slice 1152 4),
     (415, Slice 1156 4), (416, Slice 1160 4), (417, Slice 1164 4), (418, Slice 1168 3),
     (419, Slice 1171 3), (420, Slice 1174 3), (421, Slice 1177 4), (422, Slice 1181 4),
     (423, Slice 1185 4), (424, Slice 1189 4), (425, Slice 1193 4), (426, Slice 1197 3),
     (427, Slice 1200 3), (428, Slice 1203 3), (429, Slice 1206 4), (430, Slice 1210 4),
     (431, Slice 1214 5), (432, Slice 1219 4), (433, Slice 1223 5), (434, Slice 1228 5),
     (435, Slice 1233 4), (436, Slice 1237 2), (437, Slice 1239 3), (438, Slice 1242 3),
     (439, Slice 1245 5), (440, Slice 1250 1), (441, Slice 1251 3), (442, Slice 1254 3),
     (443, Slice 1257 3), (444, Slice 1260 4), (445, Slice 1264 4), (446, Slice 1268 3),
     (447, Slice 1271 4), (448, Slice 1275 3), (449, Slice 1278 4), (450, Slice 1282 4),
     (451, Slice 1286 4), (452, Slice 1290 4), (453, Slice 1294 4), (454, Slice 1298 4),
     (455, Slice 1302 3), (456, Slice 1305 4), (457, Slice 1309 3), (458, Slice 1312 2),
     (459, Slice 1314 2), (460, Slice 1316 1), (461, Slice 1317 3), (462, Slice 1320 2),
     (463, Slice 1322 2), (464, Slice 1324 2), (465, Slice 1326 3), (466, Slice 1329 2),
     (467, Slice 1331 3), (468, Slice 1334 4)]"

text \<open>Lines 4961 to 5110.\<close>

definition ts_field_map_slices_4 :: "(nat \<times> TSMapSlice) list" where
  "ts_field_map_slices_4 =
    [(469, Slice 1338 4), (470, Slice 1342 4), (471, Slice 1346 4), (472, Slice 1350 4),
     (473, Slice 1354 4), (474, Slice 1358 4), (475, Slice 1362 4), (476, Slice 1366 4),
     (477, Slice 1370 5), (478, Slice 1375 5), (479, Slice 1380 5), (480, Slice 1385 4),
     (481, Slice 1389 5), (482, Slice 1394 5), (483, Slice 1399 5), (484, Slice 1404 5),
     (485, Slice 1409 5), (486, Slice 1414 4), (487, Slice 1418 4), (488, Slice 1422 4),
     (489, Slice 1426 5), (490, Slice 1431 4), (491, Slice 1435 4), (492, Slice 1439 5),
     (493, Slice 1444 5), (494, Slice 1449 5), (495, Slice 1454 5), (496, Slice 1459 5),
     (497, Slice 1464 4), (498, Slice 1468 4), (499, Slice 1472 4), (500, Slice 1476 5),
     (501, Slice 1481 4), (502, Slice 1485 4), (503, Slice 1489 4), (504, Slice 1493 4),
     (505, Slice 1497 4), (506, Slice 1501 4), (507, Slice 1505 4), (508, Slice 1509 4),
     (509, Slice 1513 4), (510, Slice 1517 5), (511, Slice 1522 4), (512, Slice 1526 5),
     (513, Slice 1531 5), (514, Slice 1536 5), (515, Slice 1541 3), (516, Slice 1544 3),
     (517, Slice 1547 4), (518, Slice 1551 4), (519, Slice 1555 4), (520, Slice 1559 4),
     (521, Slice 1563 4), (522, Slice 1567 3), (523, Slice 1570 3), (524, Slice 1573 3),
     (525, Slice 1576 4), (526, Slice 1580 4), (527, Slice 1584 5), (528, Slice 1589 5),
     (529, Slice 1594 6), (530, Slice 1600 5), (531, Slice 1605 4), (532, Slice 1609 5),
     (533, Slice 1614 4), (534, Slice 1618 5), (535, Slice 1623 5), (536, Slice 1628 5),
     (537, Slice 1633 3), (538, Slice 1636 4), (539, Slice 1640 4), (540, Slice 1644 4),
     (541, Slice 1648 4), (542, Slice 1652 4), (543, Slice 1656 4), (544, Slice 1660 4),
     (545, Slice 1664 4), (546, Slice 1668 4), (547, Slice 1672 4), (548, Slice 1676 4),
     (549, Slice 1680 4), (550, Slice 1684 5), (551, Slice 1689 4), (552, Slice 1693 5),
     (553, Slice 1698 5), (554, Slice 1703 5), (555, Slice 1708 3), (556, Slice 1711 3),
     (557, Slice 1714 4), (558, Slice 1718 4), (559, Slice 1722 4), (560, Slice 1726 4),
     (561, Slice 1730 4), (562, Slice 1734 3), (563, Slice 1737 3), (564, Slice 1740 3),
     (565, Slice 1743 4), (566, Slice 1747 4), (567, Slice 1751 1), (568, Slice 1752 3),
     (569, Slice 1755 4), (570, Slice 1759 4), (571, Slice 1763 4), (572, Slice 1767 4),
     (573, Slice 1771 4), (574, Slice 1775 3), (575, Slice 1778 3), (576, Slice 1781 3),
     (577, Slice 1784 4), (578, Slice 1788 3), (579, Slice 1791 3), (580, Slice 1794 4),
     (581, Slice 1798 4), (582, Slice 1802 4), (583, Slice 1806 4), (584, Slice 1810 4),
     (585, Slice 1814 3), (586, Slice 1817 3), (587, Slice 1820 3), (588, Slice 1823 4),
     (589, Slice 1827 4), (590, Slice 1831 4), (591, Slice 1835 5), (592, Slice 1840 4),
     (593, Slice 1844 3), (594, Slice 1847 3), (595, Slice 1850 3), (596, Slice 1853 3),
     (597, Slice 1856 3), (598, Slice 1859 4), (599, Slice 1863 3), (600, Slice 1866 4),
     (601, Slice 1870 4), (602, Slice 1874 4), (603, Slice 1878 2), (604, Slice 1880 3),
     (605, Slice 1883 3), (606, Slice 1886 3), (607, Slice 1889 3), (608, Slice 1892 3),
     (609, Slice 1895 3), (610, Slice 1898 3), (611, Slice 1901 5), (612, Slice 1906 5),
     (613, Slice 1911 4), (614, Slice 1915 4), (615, Slice 1919 4), (616, Slice 1923 5),
     (617, Slice 1928 4), (618, Slice 1932 4)]"

text \<open>Lines 5111 to 5260.\<close>

definition ts_field_map_slices_5 :: "(nat \<times> TSMapSlice) list" where
  "ts_field_map_slices_5 =
    [(619, Slice 1936 4), (620, Slice 1940 4), (621, Slice 1944 4), (622, Slice 1948 4),
     (623, Slice 1952 3), (624, Slice 1955 4), (625, Slice 1959 3), (626, Slice 1962 3),
     (627, Slice 1965 5), (628, Slice 1970 5), (629, Slice 1975 5), (630, Slice 1980 5),
     (631, Slice 1985 4), (632, Slice 1989 4), (633, Slice 1993 5), (634, Slice 1998 4),
     (635, Slice 2002 4), (636, Slice 2006 4), (637, Slice 2010 4), (638, Slice 2014 4),
     (639, Slice 2018 3), (640, Slice 2021 4), (641, Slice 2025 3), (642, Slice 2028 4),
     (643, Slice 2032 3), (644, Slice 2035 3), (645, Slice 2038 3), (646, Slice 2041 5),
     (647, Slice 2046 4), (648, Slice 2050 4), (649, Slice 2054 4), (650, Slice 2058 5),
     (651, Slice 2063 4), (652, Slice 2067 4), (653, Slice 2071 4), (654, Slice 2075 4),
     (655, Slice 2079 4), (656, Slice 2083 4), (657, Slice 2087 3), (658, Slice 2090 4),
     (659, Slice 2094 3), (660, Slice 2097 3), (661, Slice 2100 3), (662, Slice 2103 2),
     (663, Slice 2105 4), (664, Slice 2109 4), (665, Slice 2113 4), (666, Slice 2117 3),
     (667, Slice 2120 2), (668, Slice 2122 3), (669, Slice 2125 3), (670, Slice 2128 5),
     (671, Slice 2133 5), (672, Slice 2138 5), (673, Slice 2143 5), (674, Slice 2148 5),
     (675, Slice 2153 5), (676, Slice 2158 6), (677, Slice 2164 5), (678, Slice 2169 5),
     (679, Slice 2174 5), (680, Slice 2179 5), (681, Slice 2184 5), (682, Slice 2189 5),
     (683, Slice 2194 5), (684, Slice 2199 5), (685, Slice 2204 4), (686, Slice 2208 4),
     (687, Slice 2212 4), (688, Slice 2216 5), (689, Slice 2221 5), (690, Slice 2226 5),
     (691, Slice 2231 5), (692, Slice 2236 5), (693, Slice 2241 4), (694, Slice 2245 4),
     (695, Slice 2249 4), (696, Slice 2253 5), (697, Slice 2258 5), (698, Slice 2263 6),
     (699, Slice 2269 5), (700, Slice 2274 6), (701, Slice 2280 6), (702, Slice 2286 6),
     (703, Slice 2292 5), (704, Slice 2297 4), (705, Slice 2301 5), (706, Slice 2306 5),
     (707, Slice 2311 5), (708, Slice 2316 5), (709, Slice 2321 5), (710, Slice 2326 4),
     (711, Slice 2330 4), (712, Slice 2334 4), (713, Slice 2338 5), (714, Slice 2343 4),
     (715, Slice 2347 4), (716, Slice 2351 5), (717, Slice 2356 5), (718, Slice 2361 5),
     (719, Slice 2366 5), (720, Slice 2371 5), (721, Slice 2376 4), (722, Slice 2380 4),
     (723, Slice 2384 4), (724, Slice 2388 5), (725, Slice 2393 4), (726, Slice 2397 4),
     (727, Slice 2401 4), (728, Slice 2405 4), (729, Slice 2409 4), (730, Slice 2413 4),
     (731, Slice 2417 4), (732, Slice 2421 4), (733, Slice 2425 4), (734, Slice 2429 5),
     (735, Slice 2434 4), (736, Slice 2438 5), (737, Slice 2443 5), (738, Slice 2448 5),
     (739, Slice 2453 3), (740, Slice 2456 3), (741, Slice 2459 4), (742, Slice 2463 4),
     (743, Slice 2467 4), (744, Slice 2471 4), (745, Slice 2475 4), (746, Slice 2479 3),
     (747, Slice 2482 3), (748, Slice 2485 3), (749, Slice 2488 4), (750, Slice 2492 4),
     (751, Slice 2496 5), (752, Slice 2501 5), (753, Slice 2506 6), (754, Slice 2512 5),
     (755, Slice 2517 2), (756, Slice 2519 4), (757, Slice 2523 4), (758, Slice 2527 4),
     (759, Slice 2531 1), (760, Slice 2532 1), (761, Slice 2533 2), (762, Slice 2535 1),
     (763, Slice 2536 2), (764, Slice 2538 1), (765, Slice 2539 4), (766, Slice 2543 1),
     (767, Slice 2544 4), (768, Slice 2548 5)]"

text \<open>Lines 5261 to 5410.\<close>

definition ts_field_map_slices_6 :: "(nat \<times> TSMapSlice) list" where
  "ts_field_map_slices_6 =
    [(769, Slice 2553 4), (770, Slice 2557 4), (771, Slice 2561 4), (772, Slice 2565 4),
     (773, Slice 2569 5), (774, Slice 2574 5), (775, Slice 2579 4), (776, Slice 2583 5),
     (777, Slice 2588 4), (778, Slice 2592 5), (779, Slice 2597 4), (780, Slice 2601 4),
     (781, Slice 2605 4), (782, Slice 2609 2), (783, Slice 2611 3), (784, Slice 2614 3),
     (785, Slice 2617 3), (786, Slice 2620 5), (787, Slice 2625 5), (788, Slice 2630 4),
     (789, Slice 2634 5), (790, Slice 2639 4), (791, Slice 2643 5), (792, Slice 2648 5),
     (793, Slice 2653 5), (794, Slice 2658 5), (795, Slice 2663 5), (796, Slice 2668 5),
     (797, Slice 2673 4), (798, Slice 2677 5), (799, Slice 2682 6), (800, Slice 2688 5),
     (801, Slice 2693 6), (802, Slice 2699 5), (803, Slice 2704 6), (804, Slice 2710 6),
     (805, Slice 2716 6), (806, Slice 2722 4), (807, Slice 2726 5), (808, Slice 2731 5),
     (809, Slice 2736 5), (810, Slice 2741 5), (811, Slice 2746 5), (812, Slice 2751 5),
     (813, Slice 2756 5), (814, Slice 2761 5), (815, Slice 2766 5), (816, Slice 2771 5),
     (817, Slice 2776 5), (818, Slice 2781 5), (819, Slice 2786 6), (820, Slice 2792 5),
     (821, Slice 2797 6), (822, Slice 2803 6), (823, Slice 2809 6), (824, Slice 2815 4),
     (825, Slice 2819 4), (826, Slice 2823 5), (827, Slice 2828 5), (828, Slice 2833 5),
     (829, Slice 2838 5), (830, Slice 2843 5), (831, Slice 2848 4), (832, Slice 2852 4),
     (833, Slice 2856 4), (834, Slice 2860 5), (835, Slice 2865 5), (836, Slice 2870 4),
     (837, Slice 2874 5), (838, Slice 2879 5), (839, Slice 2884 5), (840, Slice 2889 5),
     (841, Slice 2894 5), (842, Slice 2899 4), (843, Slice 2903 4), (844, Slice 2907 4),
     (845, Slice 2911 5), (846, Slice 2916 4), (847, Slice 2920 4), (848, Slice 2924 5),
     (849, Slice 2929 5), (850, Slice 2934 5), (851, Slice 2939 5), (852, Slice 2944 5),
     (853, Slice 2949 4), (854, Slice 2953 4), (855, Slice 2957 4), (856, Slice 2961 5),
     (857, Slice 2966 5), (858, Slice 2971 5), (859, Slice 2976 6), (860, Slice 2982 5),
     (861, Slice 2987 4), (862, Slice 2991 4), (863, Slice 2995 4), (864, Slice 2999 4),
     (865, Slice 3003 4), (866, Slice 3007 5), (867, Slice 3012 4), (868, Slice 3016 5),
     (869, Slice 3021 5), (870, Slice 3026 5), (871, Slice 3031 3), (872, Slice 3034 4),
     (873, Slice 3038 4), (874, Slice 3042 4), (875, Slice 3046 4), (876, Slice 3050 4),
     (877, Slice 3054 4), (878, Slice 3058 4), (879, Slice 3062 6), (880, Slice 3068 5),
     (881, Slice 3073 5), (882, Slice 3078 6), (883, Slice 3084 5), (884, Slice 3089 4),
     (885, Slice 3093 5), (886, Slice 3098 4), (887, Slice 3102 5), (888, Slice 3107 5),
     (889, Slice 3112 5), (890, Slice 3117 4), (891, Slice 3121 4), (892, Slice 3125 5),
     (893, Slice 3130 5), (894, Slice 3135 5), (895, Slice 3140 5), (896, Slice 3145 5),
     (897, Slice 3150 4), (898, Slice 3154 4), (899, Slice 3158 4), (900, Slice 3162 5),
     (901, Slice 3167 5), (902, Slice 3172 5), (903, Slice 3177 6), (904, Slice 3183 5),
     (905, Slice 3188 4), (906, Slice 3192 4), (907, Slice 3196 4), (908, Slice 3200 4),
     (909, Slice 3204 4), (910, Slice 3208 5), (911, Slice 3213 4), (912, Slice 3217 5),
     (913, Slice 3222 5), (914, Slice 3227 5), (915, Slice 3232 3), (916, Slice 3235 4),
     (917, Slice 3239 4), (918, Slice 3243 4)]"

text \<open>Lines 5411 to 5560.\<close>

definition ts_field_map_slices_7 :: "(nat \<times> TSMapSlice) list" where
  "ts_field_map_slices_7 =
    [(919, Slice 3247 4), (920, Slice 3251 4), (921, Slice 3255 4), (922, Slice 3259 4),
     (923, Slice 3263 1), (924, Slice 3264 2), (925, Slice 3266 4), (926, Slice 3270 5),
     (927, Slice 3275 4), (928, Slice 3279 5), (929, Slice 3284 5), (930, Slice 3289 5),
     (931, Slice 3294 3), (932, Slice 3297 4), (933, Slice 3301 4), (934, Slice 3305 4),
     (935, Slice 3309 4), (936, Slice 3313 4), (937, Slice 3317 4), (938, Slice 3321 4),
     (939, Slice 3325 4), (940, Slice 3329 4), (941, Slice 3333 4), (942, Slice 3337 4),
     (943, Slice 3341 4), (944, Slice 3345 5), (945, Slice 3350 4), (946, Slice 3354 5),
     (947, Slice 3359 5), (948, Slice 3364 5), (949, Slice 3369 3), (950, Slice 3372 3),
     (951, Slice 3375 4), (952, Slice 3379 4), (953, Slice 3383 4), (954, Slice 3387 4),
     (955, Slice 3391 4), (956, Slice 3395 3), (957, Slice 3398 3), (958, Slice 3401 3),
     (959, Slice 3404 4), (960, Slice 3408 4), (961, Slice 3412 5), (962, Slice 3417 3),
     (963, Slice 3420 4), (964, Slice 3424 4), (965, Slice 3428 4), (966, Slice 3432 4),
     (967, Slice 3436 4), (968, Slice 3440 3), (969, Slice 3443 3), (970, Slice 3446 3),
     (971, Slice 3449 4), (972, Slice 3453 4), (973, Slice 3457 4), (974, Slice 3461 5),
     (975, Slice 3466 4), (976, Slice 3470 3), (977, Slice 3473 4), (978, Slice 3477 3),
     (979, Slice 3480 4), (980, Slice 3484 4), (981, Slice 3488 4), (982, Slice 3492 3),
     (983, Slice 3495 5), (984, Slice 3500 5), (985, Slice 3505 5), (986, Slice 3510 4),
     (987, Slice 3514 5), (988, Slice 3519 4), (989, Slice 3523 4), (990, Slice 3527 5),
     (991, Slice 3532 4), (992, Slice 3536 4), (993, Slice 3540 4), (994, Slice 3544 5),
     (995, Slice 3549 4), (996, Slice 3553 4), (997, Slice 3557 4), (998, Slice 3561 4),
     (999, Slice 3565 4), (1000, Slice 3569 6), (1001, Slice 3575 5), (1002, Slice 3580 5),
     (1003, Slice 3585 5), (1004, Slice 3590 6), (1005, Slice 3596 5), (1006, Slice 3601 5),
     (1007, Slice 3606 5), (1008, Slice 3611 5), (1009, Slice 3616 5), (1010, Slice 3621 5),
     (1011, Slice 3626 4), (1012, Slice 3630 5), (1013, Slice 3635 4), (1014, Slice 3639 4),
     (1015, Slice 3643 5), (1016, Slice 3648 4), (1017, Slice 3652 4), (1018, Slice 3656 4),
     (1019, Slice 3660 4), (1020, Slice 3664 4), (1021, Slice 3668 4), (1022, Slice 3672 3),
     (1023, Slice 3675 4), (1024, Slice 3679 3), (1025, Slice 3682 5), (1026, Slice 3687 5),
     (1027, Slice 3692 5), (1028, Slice 3697 4), (1029, Slice 3701 5), (1030, Slice 3706 4),
     (1031, Slice 3710 4), (1032, Slice 3714 5), (1033, Slice 3719 4), (1034, Slice 3723 4),
     (1035, Slice 3727 4), (1036, Slice 3731 5), (1037, Slice 3736 4), (1038, Slice 3740 4),
     (1039, Slice 3744 4), (1040, Slice 3748 4), (1041, Slice 3752 4), (1042, Slice 3756 3),
     (1043, Slice 3759 5), (1044, Slice 3764 5), (1045, Slice 3769 4), (1046, Slice 3773 4),
     (1047, Slice 3777 1), (1048, Slice 3778 1), (1049, Slice 3779 1), (1050, Slice 3780 6),
     (1051, Slice 3786 6), (1052, Slice 3792 6), (1053, Slice 3798 6), (1054, Slice 3804 5),
     (1055, Slice 3809 6), (1056, Slice 3815 6), (1057, Slice 3821 6), (1058, Slice 3827 6),
     (1059, Slice 3833 6), (1060, Slice 3839 5), (1061, Slice 3844 5), (1062, Slice 3849 5),
     (1063, Slice 3854 6), (1064, Slice 3860 5), (1065, Slice 3865 5), (1066, Slice 3870 6),
     (1067, Slice 3876 6), (1068, Slice 3882 6)]"

text \<open>Lines 5561 to 5710.\<close>

definition ts_field_map_slices_8 :: "(nat \<times> TSMapSlice) list" where
  "ts_field_map_slices_8 =
    [(1069, Slice 3888 6), (1070, Slice 3894 6), (1071, Slice 3900 5), (1072, Slice 3905 5),
     (1073, Slice 3910 5), (1074, Slice 3915 6), (1075, Slice 3921 5), (1076, Slice 3926 5),
     (1077, Slice 3931 5), (1078, Slice 3936 5), (1079, Slice 3941 5), (1080, Slice 3946 5),
     (1081, Slice 3951 5), (1082, Slice 3956 5), (1083, Slice 3961 5), (1084, Slice 3966 6),
     (1085, Slice 3972 5), (1086, Slice 3977 6), (1087, Slice 3983 6), (1088, Slice 3989 6),
     (1089, Slice 3995 4), (1090, Slice 3999 4), (1091, Slice 4003 5), (1092, Slice 4008 5),
     (1093, Slice 4013 5), (1094, Slice 4018 5), (1095, Slice 4023 5), (1096, Slice 4028 4),
     (1097, Slice 4032 4), (1098, Slice 4036 4), (1099, Slice 4040 5), (1100, Slice 4045 5),
     (1101, Slice 4050 6), (1102, Slice 4056 6), (1103, Slice 4062 7), (1104, Slice 4069 6),
     (1105, Slice 4075 5), (1106, Slice 4080 6), (1107, Slice 4086 5), (1108, Slice 4091 6),
     (1109, Slice 4097 6), (1110, Slice 4103 6), (1111, Slice 4109 4), (1112, Slice 4113 5),
     (1113, Slice 4118 5), (1114, Slice 4123 5), (1115, Slice 4128 5), (1116, Slice 4133 5),
     (1117, Slice 4138 5), (1118, Slice 4143 5), (1119, Slice 4148 5), (1120, Slice 4153 5),
     (1121, Slice 4158 5), (1122, Slice 4163 5), (1123, Slice 4168 5), (1124, Slice 4173 6),
     (1125, Slice 4179 5), (1126, Slice 4184 6), (1127, Slice 4190 6), (1128, Slice 4196 6),
     (1129, Slice 4202 4), (1130, Slice 4206 4), (1131, Slice 4210 5), (1132, Slice 4215 5),
     (1133, Slice 4220 5), (1134, Slice 4225 5), (1135, Slice 4230 5), (1136, Slice 4235 4),
     (1137, Slice 4239 4), (1138, Slice 4243 4), (1139, Slice 4247 5), (1140, Slice 4252 5),
     (1141, Slice 4257 4), (1142, Slice 4261 5), (1143, Slice 4266 5), (1144, Slice 4271 5),
     (1145, Slice 4276 5), (1146, Slice 4281 5), (1147, Slice 4286 4), (1148, Slice 4290 4),
     (1149, Slice 4294 4), (1150, Slice 4298 5), (1151, Slice 4303 4), (1152, Slice 4307 4),
     (1153, Slice 4311 5), (1154, Slice 4316 5), (1155, Slice 4321 5), (1156, Slice 4326 5),
     (1157, Slice 4331 5), (1158, Slice 4336 4), (1159, Slice 4340 4), (1160, Slice 4344 4),
     (1161, Slice 4348 5), (1162, Slice 4353 5), (1163, Slice 4358 5), (1164, Slice 4363 6),
     (1165, Slice 4369 5), (1166, Slice 4374 4), (1167, Slice 4378 4), (1168, Slice 4382 4),
     (1169, Slice 4386 4), (1170, Slice 4390 4), (1171, Slice 4394 5), (1172, Slice 4399 4),
     (1173, Slice 4403 5), (1174, Slice 4408 5), (1175, Slice 4413 5), (1176, Slice 4418 3),
     (1177, Slice 4421 4), (1178, Slice 4425 4), (1179, Slice 4429 4), (1180, Slice 4433 4),
     (1181, Slice 4437 4), (1182, Slice 4441 4), (1183, Slice 4445 4), (1184, Slice 4449 6),
     (1185, Slice 4455 5), (1186, Slice 4460 2), (1187, Slice 4462 1), (1188, Slice 4463 2),
     (1189, Slice 4465 5), (1190, Slice 4470 5), (1191, Slice 4475 5), (1192, Slice 4480 5),
     (1193, Slice 4485 5), (1194, Slice 4490 6), (1195, Slice 4496 5), (1196, Slice 4501 5),
     (1197, Slice 4506 5), (1198, Slice 4511 5), (1199, Slice 4516 5), (1200, Slice 4521 3),
     (1201, Slice 4524 4), (1202, Slice 4528 3), (1203, Slice 4531 5), (1204, Slice 4536 6),
     (1205, Slice 4542 5), (1206, Slice 4547 5), (1207, Slice 4552 5), (1208, Slice 4557 5),
     (1209, Slice 4562 6), (1210, Slice 4568 6), (1211, Slice 4574 5), (1212, Slice 4579 6),
     (1213, Slice 4585 5), (1214, Slice 4590 6), (1215, Slice 4596 5), (1216, Slice 4601 5),
     (1217, Slice 4606 6), (1218, Slice 4612 6)]"

text \<open>Lines 5711 to 5860.\<close>

definition ts_field_map_slices_9 :: "(nat \<times> TSMapSlice) list" where
  "ts_field_map_slices_9 =
    [(1219, Slice 4618 7), (1220, Slice 4625 6), (1221, Slice 4631 5), (1222, Slice 4636 6),
     (1223, Slice 4642 5), (1224, Slice 4647 6), (1225, Slice 4653 6), (1226, Slice 4659 6),
     (1227, Slice 4665 5), (1228, Slice 4670 5), (1229, Slice 4675 6), (1230, Slice 4681 6),
     (1231, Slice 4687 6), (1232, Slice 4693 6), (1233, Slice 4699 6), (1234, Slice 4705 5),
     (1235, Slice 4710 5), (1236, Slice 4715 5), (1237, Slice 4720 6), (1238, Slice 4726 6),
     (1239, Slice 4732 6), (1240, Slice 4738 7), (1241, Slice 4745 6), (1242, Slice 4751 5),
     (1243, Slice 4756 5), (1244, Slice 4761 5), (1245, Slice 4766 5), (1246, Slice 4771 5),
     (1247, Slice 4776 6), (1248, Slice 4782 5), (1249, Slice 4787 6), (1250, Slice 4793 6),
     (1251, Slice 4799 6), (1252, Slice 4805 4), (1253, Slice 4809 5), (1254, Slice 4814 5),
     (1255, Slice 4819 5), (1256, Slice 4824 5), (1257, Slice 4829 5), (1258, Slice 4834 5),
     (1259, Slice 4839 5), (1260, Slice 4844 5), (1261, Slice 4849 6), (1262, Slice 4855 5),
     (1263, Slice 4860 6), (1264, Slice 4866 6), (1265, Slice 4872 6), (1266, Slice 4878 4),
     (1267, Slice 4882 5), (1268, Slice 4887 5), (1269, Slice 4892 5), (1270, Slice 4897 5),
     (1271, Slice 4902 5), (1272, Slice 4907 5), (1273, Slice 4912 5), (1274, Slice 4917 5),
     (1275, Slice 4922 5), (1276, Slice 4927 5), (1277, Slice 4932 5), (1278, Slice 4937 5),
     (1279, Slice 4942 6), (1280, Slice 4948 5), (1281, Slice 4953 6), (1282, Slice 4959 6),
     (1283, Slice 4965 6), (1284, Slice 4971 4), (1285, Slice 4975 4), (1286, Slice 4979 5),
     (1287, Slice 4984 5), (1288, Slice 4989 5), (1289, Slice 4994 5), (1290, Slice 4999 5),
     (1291, Slice 5004 4), (1292, Slice 5008 4), (1293, Slice 5012 4), (1294, Slice 5016 5),
     (1295, Slice 5021 5), (1296, Slice 5026 6), (1297, Slice 5032 4), (1298, Slice 5036 5),
     (1299, Slice 5041 5), (1300, Slice 5046 5), (1301, Slice 5051 5), (1302, Slice 5056 5),
     (1303, Slice 5061 4), (1304, Slice 5065 4), (1305, Slice 5069 4), (1306, Slice 5073 5),
     (1307, Slice 5078 5), (1308, Slice 5083 5), (1309, Slice 5088 6), (1310, Slice 5094 5),
     (1311, Slice 5099 4), (1312, Slice 5103 5), (1313, Slice 5108 4), (1314, Slice 5112 5),
     (1315, Slice 5117 5), (1316, Slice 5122 5), (1317, Slice 5127 4), (1318, Slice 5131 6),
     (1319, Slice 5137 5), (1320, Slice 5142 5), (1321, Slice 5147 6), (1322, Slice 5153 5),
     (1323, Slice 5158 5), (1324, Slice 5163 6), (1325, Slice 5169 5), (1326, Slice 5174 6),
     (1327, Slice 5180 6), (1328, Slice 5186 6), (1329, Slice 5192 4), (1330, Slice 5196 5),
     (1331, Slice 5201 5), (1332, Slice 5206 5), (1333, Slice 5211 5), (1334, Slice 5216 5),
     (1335, Slice 5221 5), (1336, Slice 5226 5), (1337, Slice 5231 6), (1338, Slice 5237 4),
     (1339, Slice 5241 5), (1340, Slice 5246 5), (1341, Slice 5251 5), (1342, Slice 5256 5),
     (1343, Slice 5261 5), (1344, Slice 5266 4), (1345, Slice 5270 4), (1346, Slice 5274 4),
     (1347, Slice 5278 5), (1348, Slice 5283 5), (1349, Slice 5288 5), (1350, Slice 5293 6),
     (1351, Slice 5299 5), (1352, Slice 5304 4), (1353, Slice 5308 5), (1354, Slice 5313 4),
     (1355, Slice 5317 5), (1356, Slice 5322 5), (1357, Slice 5327 5), (1358, Slice 5332 4),
     (1359, Slice 5336 3), (1360, Slice 5339 1), (1361, Slice 5340 5), (1362, Slice 5345 5),
     (1363, Slice 5350 6), (1364, Slice 5356 5), (1365, Slice 5361 4), (1366, Slice 5365 5),
     (1367, Slice 5370 4), (1368, Slice 5374 5)]"

text \<open>Lines 5861 to 6010.\<close>

definition ts_field_map_slices_10 :: "(nat \<times> TSMapSlice) list" where
  "ts_field_map_slices_10 =
    [(1369, Slice 5379 5), (1370, Slice 5384 5), (1371, Slice 5389 4), (1372, Slice 5393 4),
     (1373, Slice 5397 5), (1374, Slice 5402 5), (1375, Slice 5407 5), (1376, Slice 5412 5),
     (1377, Slice 5417 5), (1378, Slice 5422 4), (1379, Slice 5426 4), (1380, Slice 5430 4),
     (1381, Slice 5434 5), (1382, Slice 5439 5), (1383, Slice 5444 5), (1384, Slice 5449 6),
     (1385, Slice 5455 5), (1386, Slice 5460 4), (1387, Slice 5464 4), (1388, Slice 5468 4),
     (1389, Slice 5472 4), (1390, Slice 5476 4), (1391, Slice 5480 5), (1392, Slice 5485 4),
     (1393, Slice 5489 5), (1394, Slice 5494 5), (1395, Slice 5499 5), (1396, Slice 5504 3),
     (1397, Slice 5507 4), (1398, Slice 5511 4), (1399, Slice 5515 4), (1400, Slice 5519 4),
     (1401, Slice 5523 4), (1402, Slice 5527 4), (1403, Slice 5531 4), (1404, Slice 5535 4),
     (1405, Slice 5539 5), (1406, Slice 5544 4), (1407, Slice 5548 5), (1408, Slice 5553 5),
     (1409, Slice 5558 5), (1410, Slice 5563 3), (1411, Slice 5566 4), (1412, Slice 5570 4),
     (1413, Slice 5574 4), (1414, Slice 5578 4), (1415, Slice 5582 4), (1416, Slice 5586 4),
     (1417, Slice 5590 4), (1418, Slice 5594 5), (1419, Slice 5599 4), (1420, Slice 5603 4),
     (1421, Slice 5607 5), (1422, Slice 5612 4), (1423, Slice 5616 6), (1424, Slice 5622 5),
     (1425, Slice 5627 5), (1426, Slice 5632 5), (1427, Slice 5637 5), (1428, Slice 5642 5),
     (1429, Slice 5647 5), (1430, Slice 5652 5), (1431, Slice 5657 5), (1432, Slice 5662 4),
     (1433, Slice 5666 5), (1434, Slice 5671 4), (1435, Slice 5675 4), (1436, Slice 5679 5),
     (1437, Slice 5684 4), (1438, Slice 5688 4), (1439, Slice 5692 6), (1440, Slice 5698 6),
     (1441, Slice 5704 6), (1442, Slice 5710 5), (1443, Slice 5715 6), (1444, Slice 5721 5),
     (1445, Slice 5726 5), (1446, Slice 5731 6), (1447, Slice 5737 5), (1448, Slice 5742 5),
     (1449, Slice 5747 5), (1450, Slice 5752 6), (1451, Slice 5758 5), (1452, Slice 5763 5),
     (1453, Slice 5768 5), (1454, Slice 5773 5), (1455, Slice 5778 5), (1456, Slice 5783 5),
     (1457, Slice 5788 5), (1458, Slice 5793 4), (1459, Slice 5797 5), (1460, Slice 5802 4),
     (1461, Slice 5806 4), (1462, Slice 5810 4), (1463, Slice 5814 4), (1464, Slice 5818 6),
     (1465, Slice 5824 5), (1466, Slice 5829 5), (1467, Slice 5834 5), (1468, Slice 5839 5),
     (1469, Slice 5844 5), (1470, Slice 5849 5), (1471, Slice 5854 5), (1472, Slice 5859 5),
     (1473, Slice 5864 4), (1474, Slice 5868 5), (1475, Slice 5873 4), (1476, Slice 5877 4),
     (1477, Slice 5881 5), (1478, Slice 5886 4), (1479, Slice 5890 4), (1480, Slice 5894 6),
     (1481, Slice 5900 1), (1482, Slice 5901 7), (1483, Slice 5908 6), (1484, Slice 5914 7),
     (1485, Slice 5921 6), (1486, Slice 5927 7), (1487, Slice 5934 7), (1488, Slice 5941 7),
     (1489, Slice 5948 5), (1490, Slice 5953 6), (1491, Slice 5959 6), (1492, Slice 5965 6),
     (1493, Slice 5971 6), (1494, Slice 5977 6), (1495, Slice 5983 6), (1496, Slice 5989 6),
     (1497, Slice 5995 6), (1498, Slice 6001 6), (1499, Slice 6007 6), (1500, Slice 6013 6),
     (1501, Slice 6019 6), (1502, Slice 6025 7), (1503, Slice 6032 6), (1504, Slice 6038 7),
     (1505, Slice 6045 7), (1506, Slice 6052 7), (1507, Slice 6059 5), (1508, Slice 6064 5),
     (1509, Slice 6069 6), (1510, Slice 6075 6), (1511, Slice 6081 6), (1512, Slice 6087 6),
     (1513, Slice 6093 6), (1514, Slice 6099 5), (1515, Slice 6104 5), (1516, Slice 6109 5),
     (1517, Slice 6114 6), (1518, Slice 6120 6)]"

text \<open>Lines 6011 to 6160.\<close>

definition ts_field_map_slices_11 :: "(nat \<times> TSMapSlice) list" where
  "ts_field_map_slices_11 =
    [(1519, Slice 6126 5), (1520, Slice 6131 6), (1521, Slice 6137 6), (1522, Slice 6143 6),
     (1523, Slice 6149 6), (1524, Slice 6155 6), (1525, Slice 6161 5), (1526, Slice 6166 5),
     (1527, Slice 6171 5), (1528, Slice 6176 6), (1529, Slice 6182 5), (1530, Slice 6187 5),
     (1531, Slice 6192 6), (1532, Slice 6198 6), (1533, Slice 6204 6), (1534, Slice 6210 6),
     (1535, Slice 6216 6), (1536, Slice 6222 5), (1537, Slice 6227 5), (1538, Slice 6232 5),
     (1539, Slice 6237 6), (1540, Slice 6243 6), (1541, Slice 6249 6), (1542, Slice 6255 7),
     (1543, Slice 6262 6), (1544, Slice 6268 5), (1545, Slice 6273 5), (1546, Slice 6278 5),
     (1547, Slice 6283 5), (1548, Slice 6288 5), (1549, Slice 6293 6), (1550, Slice 6299 5),
     (1551, Slice 6304 6), (1552, Slice 6310 6), (1553, Slice 6316 6), (1554, Slice 6322 4),
     (1555, Slice 6326 5), (1556, Slice 6331 5), (1557, Slice 6336 5), (1558, Slice 6341 5),
     (1559, Slice 6346 5), (1560, Slice 6351 5), (1561, Slice 6356 5), (1562, Slice 6361 7),
     (1563, Slice 6368 6), (1564, Slice 6374 6), (1565, Slice 6380 7), (1566, Slice 6387 6),
     (1567, Slice 6393 5), (1568, Slice 6398 6), (1569, Slice 6404 5), (1570, Slice 6409 6),
     (1571, Slice 6415 6), (1572, Slice 6421 6), (1573, Slice 6427 5), (1574, Slice 6432 5),
     (1575, Slice 6437 6), (1576, Slice 6443 6), (1577, Slice 6449 6), (1578, Slice 6455 6),
     (1579, Slice 6461 6), (1580, Slice 6467 5), (1581, Slice 6472 5), (1582, Slice 6477 5),
     (1583, Slice 6482 6), (1584, Slice 6488 6), (1585, Slice 6494 6), (1586, Slice 6500 7),
     (1587, Slice 6507 6), (1588, Slice 6513 5), (1589, Slice 6518 5), (1590, Slice 6523 5),
     (1591, Slice 6528 5), (1592, Slice 6533 5), (1593, Slice 6538 6), (1594, Slice 6544 5),
     (1595, Slice 6549 6), (1596, Slice 6555 6), (1597, Slice 6561 6), (1598, Slice 6567 4),
     (1599, Slice 6571 5), (1600, Slice 6576 5), (1601, Slice 6581 5), (1602, Slice 6586 5),
     (1603, Slice 6591 5), (1604, Slice 6596 5), (1605, Slice 6601 5), (1606, Slice 6606 5),
     (1607, Slice 6611 6), (1608, Slice 6617 5), (1609, Slice 6622 6), (1610, Slice 6628 6),
     (1611, Slice 6634 6), (1612, Slice 6640 4), (1613, Slice 6644 5), (1614, Slice 6649 5),
     (1615, Slice 6654 5), (1616, Slice 6659 5), (1617, Slice 6664 5), (1618, Slice 6669 5),
     (1619, Slice 6674 5), (1620, Slice 6679 5), (1621, Slice 6684 5), (1622, Slice 6689 5),
     (1623, Slice 6694 5), (1624, Slice 6699 5), (1625, Slice 6704 6), (1626, Slice 6710 5),
     (1627, Slice 6715 6), (1628, Slice 6721 6), (1629, Slice 6727 6), (1630, Slice 6733 4),
     (1631, Slice 6737 4), (1632, Slice 6741 5), (1633, Slice 6746 5), (1634, Slice 6751 5),
     (1635, Slice 6756 5), (1636, Slice 6761 5), (1637, Slice 6766 4), (1638, Slice 6770 4),
     (1639, Slice 6774 4), (1640, Slice 6778 5), (1641, Slice 6783 5), (1642, Slice 6788 6),
     (1643, Slice 6794 4), (1644, Slice 6798 5), (1645, Slice 6803 5), (1646, Slice 6808 5),
     (1647, Slice 6813 5), (1648, Slice 6818 5), (1649, Slice 6823 4), (1650, Slice 6827 4),
     (1651, Slice 6831 4), (1652, Slice 6835 5), (1653, Slice 6840 5), (1654, Slice 6845 5),
     (1655, Slice 6850 6), (1656, Slice 6856 5), (1657, Slice 6861 4), (1658, Slice 6865 5),
     (1659, Slice 6870 4), (1660, Slice 6874 5), (1661, Slice 6879 5), (1662, Slice 6884 5),
     (1663, Slice 6889 4), (1664, Slice 6893 2), (1665, Slice 6895 2), (1666, Slice 6897 6),
     (1667, Slice 6903 6), (1668, Slice 6909 6)]"

text \<open>Lines 6161 to 6310.\<close>

definition ts_field_map_slices_12 :: "(nat \<times> TSMapSlice) list" where
  "ts_field_map_slices_12 =
    [(1669, Slice 6915 6), (1670, Slice 6921 6), (1671, Slice 6927 4), (1672, Slice 6931 6),
     (1673, Slice 6937 6), (1674, Slice 6943 6), (1675, Slice 6949 6), (1676, Slice 6955 6),
     (1677, Slice 6961 7), (1678, Slice 6968 6), (1679, Slice 6974 6), (1680, Slice 6980 6),
     (1681, Slice 6986 6), (1682, Slice 6992 6), (1683, Slice 6998 7), (1684, Slice 7005 6),
     (1685, Slice 7011 6), (1686, Slice 7017 7), (1687, Slice 7024 6), (1688, Slice 7030 6),
     (1689, Slice 7036 7), (1690, Slice 7043 6), (1691, Slice 7049 7), (1692, Slice 7056 7),
     (1693, Slice 7063 7), (1694, Slice 7070 5), (1695, Slice 7075 6), (1696, Slice 7081 6),
     (1697, Slice 7087 6), (1698, Slice 7093 6), (1699, Slice 7099 6), (1700, Slice 7105 6),
     (1701, Slice 7111 6), (1702, Slice 7117 7), (1703, Slice 7124 5), (1704, Slice 7129 6),
     (1705, Slice 7135 6), (1706, Slice 7141 6), (1707, Slice 7147 6), (1708, Slice 7153 6),
     (1709, Slice 7159 5), (1710, Slice 7164 5), (1711, Slice 7169 5), (1712, Slice 7174 6),
     (1713, Slice 7180 6), (1714, Slice 7186 6), (1715, Slice 7192 7), (1716, Slice 7199 6),
     (1717, Slice 7205 5), (1718, Slice 7210 6), (1719, Slice 7216 5), (1720, Slice 7221 6),
     (1721, Slice 7227 6), (1722, Slice 7233 6), (1723, Slice 7239 5), (1724, Slice 7244 6),
     (1725, Slice 7250 6), (1726, Slice 7256 7), (1727, Slice 7263 6), (1728, Slice 7269 5),
     (1729, Slice 7274 6), (1730, Slice 7280 5), (1731, Slice 7285 6), (1732, Slice 7291 6),
     (1733, Slice 7297 6), (1734, Slice 7303 5), (1735, Slice 7308 5), (1736, Slice 7313 6),
     (1737, Slice 7319 6), (1738, Slice 7325 6), (1739, Slice 7331 6), (1740, Slice 7337 6),
     (1741, Slice 7343 5), (1742, Slice 7348 5), (1743, Slice 7353 5), (1744, Slice 7358 6),
     (1745, Slice 7364 6), (1746, Slice 7370 6), (1747, Slice 7376 7), (1748, Slice 7383 6),
     (1749, Slice 7389 5), (1750, Slice 7394 5), (1751, Slice 7399 5), (1752, Slice 7404 5),
     (1753, Slice 7409 5), (1754, Slice 7414 6), (1755, Slice 7420 5), (1756, Slice 7425 6),
     (1757, Slice 7431 6), (1758, Slice 7437 6), (1759, Slice 7443 4), (1760, Slice 7447 5),
     (1761, Slice 7452 5), (1762, Slice 7457 5), (1763, Slice 7462 5), (1764, Slice 7467 5),
     (1765, Slice 7472 5), (1766, Slice 7477 5), (1767, Slice 7482 5), (1768, Slice 7487 6),
     (1769, Slice 7493 5), (1770, Slice 7498 6), (1771, Slice 7504 6), (1772, Slice 7510 6),
     (1773, Slice 7516 4), (1774, Slice 7520 5), (1775, Slice 7525 5), (1776, Slice 7530 5),
     (1777, Slice 7535 5), (1778, Slice 7540 5), (1779, Slice 7545 5), (1780, Slice 7550 5),
     (1781, Slice 7555 6), (1782, Slice 7561 5), (1783, Slice 7566 5), (1784, Slice 7571 6),
     (1785, Slice 7577 5), (1786, Slice 7582 6), (1787, Slice 7588 6), (1788, Slice 7594 6),
     (1789, Slice 7600 7), (1790, Slice 7607 6), (1791, Slice 7613 5), (1792, Slice 7618 6),
     (1793, Slice 7624 5), (1794, Slice 7629 6), (1795, Slice 7635 6), (1796, Slice 7641 6),
     (1797, Slice 7647 5), (1798, Slice 7652 5), (1799, Slice 7657 6), (1800, Slice 7663 5),
     (1801, Slice 7668 6), (1802, Slice 7674 6), (1803, Slice 7680 6), (1804, Slice 7686 4),
     (1805, Slice 7690 5), (1806, Slice 7695 5), (1807, Slice 7700 5), (1808, Slice 7705 5),
     (1809, Slice 7710 5), (1810, Slice 7715 5), (1811, Slice 7720 5), (1812, Slice 7725 6),
     (1813, Slice 7731 5), (1814, Slice 7736 5), (1815, Slice 7741 6), (1816, Slice 7747 5),
     (1817, Slice 7752 6), (1818, Slice 7758 5)]"

text \<open>Lines 6311 to 6460.\<close>

definition ts_field_map_slices_13 :: "(nat \<times> TSMapSlice) list" where
  "ts_field_map_slices_13 =
    [(1819, Slice 7763 5), (1820, Slice 7768 6), (1821, Slice 7774 5), (1822, Slice 7779 5),
     (1823, Slice 7784 6), (1824, Slice 7790 5), (1825, Slice 7795 6), (1826, Slice 7801 6),
     (1827, Slice 7807 6), (1828, Slice 7813 4), (1829, Slice 7817 5), (1830, Slice 7822 5),
     (1831, Slice 7827 5), (1832, Slice 7832 5), (1833, Slice 7837 5), (1834, Slice 7842 5),
     (1835, Slice 7847 5), (1836, Slice 7852 6), (1837, Slice 7858 4), (1838, Slice 7862 5),
     (1839, Slice 7867 5), (1840, Slice 7872 5), (1841, Slice 7877 5), (1842, Slice 7882 5),
     (1843, Slice 7887 4), (1844, Slice 7891 4), (1845, Slice 7895 4), (1846, Slice 7899 5),
     (1847, Slice 7904 5), (1848, Slice 7909 5), (1849, Slice 7914 6), (1850, Slice 7920 5),
     (1851, Slice 7925 4), (1852, Slice 7929 5), (1853, Slice 7934 4), (1854, Slice 7938 5),
     (1855, Slice 7943 5), (1856, Slice 7948 5), (1857, Slice 7953 4), (1858, Slice 7957 5),
     (1859, Slice 7962 5), (1860, Slice 7967 6), (1861, Slice 7973 5), (1862, Slice 7978 4),
     (1863, Slice 7982 5), (1864, Slice 7987 4), (1865, Slice 7991 5), (1866, Slice 7996 5),
     (1867, Slice 8001 5), (1868, Slice 8006 4), (1869, Slice 8010 5), (1870, Slice 8015 6),
     (1871, Slice 8021 6), (1872, Slice 8027 5), (1873, Slice 8032 5), (1874, Slice 8037 6),
     (1875, Slice 8043 5), (1876, Slice 8048 5), (1877, Slice 8053 5), (1878, Slice 8058 5),
     (1879, Slice 8063 5), (1880, Slice 8068 5), (1881, Slice 8073 7), (1882, Slice 8080 6),
     (1883, Slice 8086 6), (1884, Slice 8092 6), (1885, Slice 8098 6), (1886, Slice 8104 6),
     (1887, Slice 8110 6), (1888, Slice 8116 6), (1889, Slice 8122 6), (1890, Slice 8128 5),
     (1891, Slice 8133 6), (1892, Slice 8139 5), (1893, Slice 8144 5), (1894, Slice 8149 6),
     (1895, Slice 8155 5), (1896, Slice 8160 5), (1897, Slice 8165 5), (1898, Slice 8170 5),
     (1899, Slice 8175 5), (1900, Slice 8180 4), (1901, Slice 8184 6), (1902, Slice 8190 6),
     (1903, Slice 8196 5), (1904, Slice 8201 5), (1905, Slice 8206 6), (1906, Slice 8212 5),
     (1907, Slice 8217 5), (1908, Slice 8222 5), (1909, Slice 8227 5), (1910, Slice 8232 5),
     (1911, Slice 8237 5), (1912, Slice 8242 7), (1913, Slice 8249 7), (1914, Slice 8256 8),
     (1915, Slice 8264 7), (1916, Slice 8271 6), (1917, Slice 8277 7), (1918, Slice 8284 6),
     (1919, Slice 8290 7), (1920, Slice 8297 7), (1921, Slice 8304 7), (1922, Slice 8311 6),
     (1923, Slice 8317 6), (1924, Slice 8323 7), (1925, Slice 8330 7), (1926, Slice 8337 7),
     (1927, Slice 8344 7), (1928, Slice 8351 7), (1929, Slice 8358 6), (1930, Slice 8364 6),
     (1931, Slice 8370 6), (1932, Slice 8376 7), (1933, Slice 8383 7), (1934, Slice 8390 7),
     (1935, Slice 8397 8), (1936, Slice 8405 7), (1937, Slice 8412 6), (1938, Slice 8418 6),
     (1939, Slice 8424 6), (1940, Slice 8430 6), (1941, Slice 8436 6), (1942, Slice 8442 7),
     (1943, Slice 8449 6), (1944, Slice 8455 7), (1945, Slice 8462 7), (1946, Slice 8469 7),
     (1947, Slice 8476 5), (1948, Slice 8481 6), (1949, Slice 8487 6), (1950, Slice 8493 6),
     (1951, Slice 8499 6), (1952, Slice 8505 6), (1953, Slice 8511 6), (1954, Slice 8517 6),
     (1955, Slice 8523 6), (1956, Slice 8529 7), (1957, Slice 8536 6), (1958, Slice 8542 7),
     (1959, Slice 8549 7), (1960, Slice 8556 7), (1961, Slice 8563 5), (1962, Slice 8568 6),
     (1963, Slice 8574 6), (1964, Slice 8580 6), (1965, Slice 8586 6), (1966, Slice 8592 6),
     (1967, Slice 8598 6), (1968, Slice 8604 6)]"

text \<open>Lines 6461 to 6610.\<close>

definition ts_field_map_slices_14 :: "(nat \<times> TSMapSlice) list" where
  "ts_field_map_slices_14 =
    [(1969, Slice 8610 6), (1970, Slice 8616 6), (1971, Slice 8622 6), (1972, Slice 8628 6),
     (1973, Slice 8634 6), (1974, Slice 8640 7), (1975, Slice 8647 6), (1976, Slice 8653 7),
     (1977, Slice 8660 7), (1978, Slice 8667 7), (1979, Slice 8674 5), (1980, Slice 8679 5),
     (1981, Slice 8684 6), (1982, Slice 8690 6), (1983, Slice 8696 6), (1984, Slice 8702 6),
     (1985, Slice 8708 6), (1986, Slice 8714 5), (1987, Slice 8719 5), (1988, Slice 8724 5),
     (1989, Slice 8729 6), (1990, Slice 8735 6), (1991, Slice 8741 7), (1992, Slice 8748 5),
     (1993, Slice 8753 6), (1994, Slice 8759 6), (1995, Slice 8765 6), (1996, Slice 8771 6),
     (1997, Slice 8777 6), (1998, Slice 8783 5), (1999, Slice 8788 5), (2000, Slice 8793 5),
     (2001, Slice 8798 6), (2002, Slice 8804 6), (2003, Slice 8810 6), (2004, Slice 8816 7),
     (2005, Slice 8823 6), (2006, Slice 8829 5), (2007, Slice 8834 6), (2008, Slice 8840 5),
     (2009, Slice 8845 6), (2010, Slice 8851 6), (2011, Slice 8857 6), (2012, Slice 8863 5),
     (2013, Slice 8868 7), (2014, Slice 8875 6), (2015, Slice 8881 6), (2016, Slice 8887 7),
     (2017, Slice 8894 6), (2018, Slice 8900 6), (2019, Slice 8906 7), (2020, Slice 8913 6),
     (2021, Slice 8919 7), (2022, Slice 8926 7), (2023, Slice 8933 7), (2024, Slice 8940 5),
     (2025, Slice 8945 6), (2026, Slice 8951 6), (2027, Slice 8957 6), (2028, Slice 8963 6),
     (2029, Slice 8969 6), (2030, Slice 8975 6), (2031, Slice 8981 6), (2032, Slice 8987 7),
     (2033, Slice 8994 5), (2034, Slice 8999 6), (2035, Slice 9005 6), (2036, Slice 9011 6),
     (2037, Slice 9017 6), (2038, Slice 9023 6), (2039, Slice 9029 5), (2040, Slice 9034 5),
     (2041, Slice 9039 5), (2042, Slice 9044 6), (2043, Slice 9050 6), (2044, Slice 9056 6),
     (2045, Slice 9062 7), (2046, Slice 9069 6), (2047, Slice 9075 5), (2048, Slice 9080 6),
     (2049, Slice 9086 5), (2050, Slice 9091 6), (2051, Slice 9097 6), (2052, Slice 9103 6),
     (2053, Slice 9109 5), (2054, Slice 9114 6), (2055, Slice 9120 6), (2056, Slice 9126 7),
     (2057, Slice 9133 6), (2058, Slice 9139 5), (2059, Slice 9144 6), (2060, Slice 9150 5),
     (2061, Slice 9155 6), (2062, Slice 9161 6), (2063, Slice 9167 6), (2064, Slice 9173 5),
     (2065, Slice 9178 5), (2066, Slice 9183 6), (2067, Slice 9189 6), (2068, Slice 9195 6),
     (2069, Slice 9201 6), (2070, Slice 9207 6), (2071, Slice 9213 5), (2072, Slice 9218 5),
     (2073, Slice 9223 5), (2074, Slice 9228 6), (2075, Slice 9234 6), (2076, Slice 9240 6),
     (2077, Slice 9246 7), (2078, Slice 9253 6), (2079, Slice 9259 5), (2080, Slice 9264 5),
     (2081, Slice 9269 5), (2082, Slice 9274 5), (2083, Slice 9279 5), (2084, Slice 9284 6),
     (2085, Slice 9290 5), (2086, Slice 9295 6), (2087, Slice 9301 6), (2088, Slice 9307 6),
     (2089, Slice 9313 4), (2090, Slice 9317 5), (2091, Slice 9322 5), (2092, Slice 9327 5),
     (2093, Slice 9332 5), (2094, Slice 9337 5), (2095, Slice 9342 5), (2096, Slice 9347 5),
     (2097, Slice 9352 5), (2098, Slice 9357 6), (2099, Slice 9363 5), (2100, Slice 9368 6),
     (2101, Slice 9374 6), (2102, Slice 9380 6), (2103, Slice 9386 4), (2104, Slice 9390 5),
     (2105, Slice 9395 5), (2106, Slice 9400 5), (2107, Slice 9405 5), (2108, Slice 9410 5),
     (2109, Slice 9415 5), (2110, Slice 9420 5), (2111, Slice 9425 6), (2112, Slice 9431 5),
     (2113, Slice 9436 5), (2114, Slice 9441 6), (2115, Slice 9447 5), (2116, Slice 9452 3),
     (2117, Slice 9455 7), (2118, Slice 9462 7)]"

text \<open>Lines 6611 to 6760.\<close>

definition ts_field_map_slices_15 :: "(nat \<times> TSMapSlice) list" where
  "ts_field_map_slices_15 =
    [(2119, Slice 9469 7), (2120, Slice 9476 7), (2121, Slice 9483 7), (2122, Slice 9490 7),
     (2123, Slice 9497 7), (2124, Slice 9504 7), (2125, Slice 9511 7), (2126, Slice 9518 8),
     (2127, Slice 9526 7), (2128, Slice 9533 6), (2129, Slice 9539 7), (2130, Slice 9546 6),
     (2131, Slice 9552 7), (2132, Slice 9559 7), (2133, Slice 9566 7), (2134, Slice 9573 6),
     (2135, Slice 9579 6), (2136, Slice 9585 7), (2137, Slice 9592 6), (2138, Slice 9598 7),
     (2139, Slice 9605 7), (2140, Slice 9612 7), (2141, Slice 9619 5), (2142, Slice 9624 6),
     (2143, Slice 9630 6), (2144, Slice 9636 6), (2145, Slice 9642 6), (2146, Slice 9648 6),
     (2147, Slice 9654 6), (2148, Slice 9660 6), (2149, Slice 9666 7), (2150, Slice 9673 6),
     (2151, Slice 9679 6), (2152, Slice 9685 7), (2153, Slice 9692 6), (2154, Slice 9698 7),
     (2155, Slice 9705 6), (2156, Slice 9711 6), (2157, Slice 9717 7), (2158, Slice 9724 6),
     (2159, Slice 9730 6), (2160, Slice 9736 7), (2161, Slice 9743 6), (2162, Slice 9749 7),
     (2163, Slice 9756 7), (2164, Slice 9763 7), (2165, Slice 9770 5), (2166, Slice 9775 6),
     (2167, Slice 9781 6), (2168, Slice 9787 6), (2169, Slice 9793 6), (2170, Slice 9799 6),
     (2171, Slice 9805 6), (2172, Slice 9811 6), (2173, Slice 9817 7), (2174, Slice 9824 5),
     (2175, Slice 9829 6), (2176, Slice 9835 6), (2177, Slice 9841 6), (2178, Slice 9847 6),
     (2179, Slice 9853 6), (2180, Slice 9859 5), (2181, Slice 9864 5), (2182, Slice 9869 5),
     (2183, Slice 9874 6), (2184, Slice 9880 6), (2185, Slice 9886 6), (2186, Slice 9892 7),
     (2187, Slice 9899 6), (2188, Slice 9905 5), (2189, Slice 9910 6), (2190, Slice 9916 5),
     (2191, Slice 9921 6), (2192, Slice 9927 6), (2193, Slice 9933 6), (2194, Slice 9939 5),
     (2195, Slice 9944 6), (2196, Slice 9950 6), (2197, Slice 9956 7), (2198, Slice 9963 6),
     (2199, Slice 9969 5), (2200, Slice 9974 6), (2201, Slice 9980 5), (2202, Slice 9985 6),
     (2203, Slice 9991 6), (2204, Slice 9997 6), (2205, Slice 10003 5), (2206, Slice 10008 6),
     (2207, Slice 10014 7), (2208, Slice 10021 6), (2209, Slice 10027 6), (2210, Slice 10033 7),
     (2211, Slice 10040 6), (2212, Slice 10046 6), (2213, Slice 10052 6), (2214, Slice 10058 7),
     (2215, Slice 10065 6), (2216, Slice 10071 5), (2217, Slice 10076 6), (2218, Slice 10082 5),
     (2219, Slice 10087 6), (2220, Slice 10093 6), (2221, Slice 10099 6), (2222, Slice 10105 5),
     (2223, Slice 10110 6), (2224, Slice 10116 6), (2225, Slice 10122 6), (2226, Slice 10128 6),
     (2227, Slice 10134 7), (2228, Slice 10141 6), (2229, Slice 10147 5), (2230, Slice 10152 6),
     (2231, Slice 10158 5), (2232, Slice 10163 6), (2233, Slice 10169 6), (2234, Slice 10175 6),
     (2235, Slice 10181 5), (2236, Slice 10186 5), (2237, Slice 10191 6), (2238, Slice 10197 5),
     (2239, Slice 10202 6), (2240, Slice 10208 6), (2241, Slice 10214 6), (2242, Slice 10220 4),
     (2243, Slice 10224 5), (2244, Slice 10229 5), (2245, Slice 10234 5), (2246, Slice 10239 5),
     (2247, Slice 10244 5), (2248, Slice 10249 5), (2249, Slice 10254 5), (2250, Slice 10259 6),
     (2251, Slice 10265 5), (2252, Slice 10270 5), (2253, Slice 10275 6), (2254, Slice 10281 5),
     (2255, Slice 10286 6), (2256, Slice 10292 5), (2257, Slice 10297 5), (2258, Slice 10302 6),
     (2259, Slice 10308 5), (2260, Slice 10313 6), (2261, Slice 10319 6), (2262, Slice 10325 6),
     (2263, Slice 10331 5), (2264, Slice 10336 5), (2265, Slice 10341 7), (2266, Slice 10348 7),
     (2267, Slice 10355 6), (2268, Slice 10361 6)]"

text \<open>Lines 6761 to 6910.\<close>

definition ts_field_map_slices_16 :: "(nat \<times> TSMapSlice) list" where
  "ts_field_map_slices_16 =
    [(2269, Slice 10367 7), (2270, Slice 10374 6), (2271, Slice 10380 6), (2272, Slice 10386 6),
     (2273, Slice 10392 6), (2274, Slice 10398 6), (2275, Slice 10404 6), (2276, Slice 10410 5),
     (2277, Slice 10415 6), (2278, Slice 10421 6), (2279, Slice 10427 6), (2280, Slice 10433 5),
     (2281, Slice 10438 5), (2282, Slice 10443 8), (2283, Slice 10451 7), (2284, Slice 10458 7),
     (2285, Slice 10465 8), (2286, Slice 10473 7), (2287, Slice 10480 7), (2288, Slice 10487 8),
     (2289, Slice 10495 7), (2290, Slice 10502 8), (2291, Slice 10510 8), (2292, Slice 10518 8),
     (2293, Slice 10526 6), (2294, Slice 10532 7), (2295, Slice 10539 7), (2296, Slice 10546 7),
     (2297, Slice 10553 7), (2298, Slice 10560 7), (2299, Slice 10567 7), (2300, Slice 10574 7),
     (2301, Slice 10581 8), (2302, Slice 10589 6), (2303, Slice 10595 7), (2304, Slice 10602 7),
     (2305, Slice 10609 7), (2306, Slice 10616 7), (2307, Slice 10623 7), (2308, Slice 10630 6),
     (2309, Slice 10636 6), (2310, Slice 10642 6), (2311, Slice 10648 7), (2312, Slice 10655 7),
     (2313, Slice 10662 7), (2314, Slice 10669 8), (2315, Slice 10677 7), (2316, Slice 10684 6),
     (2317, Slice 10690 7), (2318, Slice 10697 6), (2319, Slice 10703 7), (2320, Slice 10710 7),
     (2321, Slice 10717 7), (2322, Slice 10724 6), (2323, Slice 10730 7), (2324, Slice 10737 7),
     (2325, Slice 10744 8), (2326, Slice 10752 7), (2327, Slice 10759 6), (2328, Slice 10765 7),
     (2329, Slice 10772 6), (2330, Slice 10778 7), (2331, Slice 10785 7), (2332, Slice 10792 7),
     (2333, Slice 10799 6), (2334, Slice 10805 6), (2335, Slice 10811 7), (2336, Slice 10818 7),
     (2337, Slice 10825 7), (2338, Slice 10832 7), (2339, Slice 10839 7), (2340, Slice 10846 6),
     (2341, Slice 10852 6), (2342, Slice 10858 6), (2343, Slice 10864 7), (2344, Slice 10871 7),
     (2345, Slice 10878 7), (2346, Slice 10885 8), (2347, Slice 10893 7), (2348, Slice 10900 6),
     (2349, Slice 10906 6), (2350, Slice 10912 6), (2351, Slice 10918 6), (2352, Slice 10924 6),
     (2353, Slice 10930 7), (2354, Slice 10937 6), (2355, Slice 10943 7), (2356, Slice 10950 7),
     (2357, Slice 10957 7), (2358, Slice 10964 5), (2359, Slice 10969 6), (2360, Slice 10975 6),
     (2361, Slice 10981 6), (2362, Slice 10987 6), (2363, Slice 10993 6), (2364, Slice 10999 6),
     (2365, Slice 11005 6), (2366, Slice 11011 6), (2367, Slice 11017 7), (2368, Slice 11024 6),
     (2369, Slice 11030 7), (2370, Slice 11037 7), (2371, Slice 11044 7), (2372, Slice 11051 5),
     (2373, Slice 11056 6), (2374, Slice 11062 6), (2375, Slice 11068 6), (2376, Slice 11074 6),
     (2377, Slice 11080 6), (2378, Slice 11086 6), (2379, Slice 11092 6), (2380, Slice 11098 7),
     (2381, Slice 11105 6), (2382, Slice 11111 6), (2383, Slice 11117 7), (2384, Slice 11124 6),
     (2385, Slice 11130 7), (2386, Slice 11137 7), (2387, Slice 11144 7), (2388, Slice 11151 8),
     (2389, Slice 11159 7), (2390, Slice 11166 6), (2391, Slice 11172 7), (2392, Slice 11179 6),
     (2393, Slice 11185 7), (2394, Slice 11192 7), (2395, Slice 11199 7), (2396, Slice 11206 6),
     (2397, Slice 11212 6), (2398, Slice 11218 7), (2399, Slice 11225 6), (2400, Slice 11231 7),
     (2401, Slice 11238 7), (2402, Slice 11245 7), (2403, Slice 11252 5), (2404, Slice 11257 6),
     (2405, Slice 11263 6), (2406, Slice 11269 6), (2407, Slice 11275 6), (2408, Slice 11281 6),
     (2409, Slice 11287 6), (2410, Slice 11293 6), (2411, Slice 11299 7), (2412, Slice 11306 6),
     (2413, Slice 11312 6), (2414, Slice 11318 7), (2415, Slice 11325 6), (2416, Slice 11331 7),
     (2417, Slice 11338 6), (2418, Slice 11344 6)]"

text \<open>Lines 6911 to 7060.\<close>

definition ts_field_map_slices_17 :: "(nat \<times> TSMapSlice) list" where
  "ts_field_map_slices_17 =
    [(2419, Slice 11350 7), (2420, Slice 11357 6), (2421, Slice 11363 6), (2422, Slice 11369 7),
     (2423, Slice 11376 6), (2424, Slice 11382 7), (2425, Slice 11389 7), (2426, Slice 11396 7),
     (2427, Slice 11403 5), (2428, Slice 11408 6), (2429, Slice 11414 6), (2430, Slice 11420 6),
     (2431, Slice 11426 6), (2432, Slice 11432 6), (2433, Slice 11438 6), (2434, Slice 11444 6),
     (2435, Slice 11450 7), (2436, Slice 11457 5), (2437, Slice 11462 6), (2438, Slice 11468 6),
     (2439, Slice 11474 6), (2440, Slice 11480 6), (2441, Slice 11486 6), (2442, Slice 11492 5),
     (2443, Slice 11497 5), (2444, Slice 11502 5), (2445, Slice 11507 6), (2446, Slice 11513 6),
     (2447, Slice 11519 6), (2448, Slice 11525 7), (2449, Slice 11532 6), (2450, Slice 11538 5),
     (2451, Slice 11543 6), (2452, Slice 11549 5), (2453, Slice 11554 6), (2454, Slice 11560 6),
     (2455, Slice 11566 6), (2456, Slice 11572 5), (2457, Slice 11577 6), (2458, Slice 11583 6),
     (2459, Slice 11589 7), (2460, Slice 11596 6), (2461, Slice 11602 5), (2462, Slice 11607 6),
     (2463, Slice 11613 5), (2464, Slice 11618 6), (2465, Slice 11624 6), (2466, Slice 11630 6),
     (2467, Slice 11636 5), (2468, Slice 11641 6), (2469, Slice 11647 8), (2470, Slice 11655 8),
     (2471, Slice 11663 7), (2472, Slice 11670 7), (2473, Slice 11677 8), (2474, Slice 11685 7),
     (2475, Slice 11692 7), (2476, Slice 11699 7), (2477, Slice 11706 8), (2478, Slice 11714 7),
     (2479, Slice 11721 6), (2480, Slice 11727 7), (2481, Slice 11734 6), (2482, Slice 11740 7),
     (2483, Slice 11747 7), (2484, Slice 11754 7), (2485, Slice 11761 6), (2486, Slice 11767 7),
     (2487, Slice 11774 7), (2488, Slice 11781 7), (2489, Slice 11788 7), (2490, Slice 11795 8),
     (2491, Slice 11803 7), (2492, Slice 11810 6), (2493, Slice 11816 7), (2494, Slice 11823 6),
     (2495, Slice 11829 7), (2496, Slice 11836 7), (2497, Slice 11843 7), (2498, Slice 11850 6),
     (2499, Slice 11856 6), (2500, Slice 11862 7), (2501, Slice 11869 6), (2502, Slice 11875 7),
     (2503, Slice 11882 7), (2504, Slice 11889 7), (2505, Slice 11896 5), (2506, Slice 11901 6),
     (2507, Slice 11907 6), (2508, Slice 11913 6), (2509, Slice 11919 6), (2510, Slice 11925 6),
     (2511, Slice 11931 6), (2512, Slice 11937 6), (2513, Slice 11943 7), (2514, Slice 11950 6),
     (2515, Slice 11956 6), (2516, Slice 11962 7), (2517, Slice 11969 6), (2518, Slice 11975 7),
     (2519, Slice 11982 6), (2520, Slice 11988 6), (2521, Slice 11994 7), (2522, Slice 12001 6),
     (2523, Slice 12007 7), (2524, Slice 12014 7), (2525, Slice 12021 6), (2526, Slice 12027 6),
     (2527, Slice 12033 7), (2528, Slice 12040 6), (2529, Slice 12046 7), (2530, Slice 12053 6),
     (2531, Slice 12059 6), (2532, Slice 12065 7), (2533, Slice 12072 6), (2534, Slice 12078 6),
     (2535, Slice 12084 6), (2536, Slice 12090 7), (2537, Slice 12097 6), (2538, Slice 12103 5),
     (2539, Slice 12108 6), (2540, Slice 12114 5), (2541, Slice 12119 6), (2542, Slice 12125 6),
     (2543, Slice 12131 6), (2544, Slice 12137 5), (2545, Slice 12142 6), (2546, Slice 12148 6),
     (2547, Slice 12154 6), (2548, Slice 12160 7), (2549, Slice 12167 7), (2550, Slice 12174 7),
     (2551, Slice 12181 6), (2552, Slice 12187 6), (2553, Slice 12193 6), (2554, Slice 12199 2),
     (2555, Slice 12201 2), (2556, Slice 12203 2), (2557, Slice 12205 8), (2558, Slice 12213 8),
     (2559, Slice 12221 8), (2560, Slice 12229 9), (2561, Slice 12238 8), (2562, Slice 12246 7),
     (2563, Slice 12253 8), (2564, Slice 12261 7), (2565, Slice 12268 8), (2566, Slice 12276 8),
     (2567, Slice 12284 8), (2568, Slice 12292 7)]"

text \<open>Lines 7061 to 7210.\<close>

definition ts_field_map_slices_18 :: "(nat \<times> TSMapSlice) list" where
  "ts_field_map_slices_18 =
    [(2569, Slice 12299 7), (2570, Slice 12306 8), (2571, Slice 12314 7), (2572, Slice 12321 8),
     (2573, Slice 12329 8), (2574, Slice 12337 8), (2575, Slice 12345 6), (2576, Slice 12351 7),
     (2577, Slice 12358 7), (2578, Slice 12365 7), (2579, Slice 12372 7), (2580, Slice 12379 7),
     (2581, Slice 12386 7), (2582, Slice 12393 7), (2583, Slice 12400 8), (2584, Slice 12408 7),
     (2585, Slice 12415 7), (2586, Slice 12422 8), (2587, Slice 12430 7), (2588, Slice 12437 8),
     (2589, Slice 12445 7), (2590, Slice 12452 7), (2591, Slice 12459 8), (2592, Slice 12467 7),
     (2593, Slice 12474 7), (2594, Slice 12481 8), (2595, Slice 12489 7), (2596, Slice 12496 8),
     (2597, Slice 12504 8), (2598, Slice 12512 8), (2599, Slice 12520 6), (2600, Slice 12526 7),
     (2601, Slice 12533 7), (2602, Slice 12540 7), (2603, Slice 12547 7), (2604, Slice 12554 7),
     (2605, Slice 12561 7), (2606, Slice 12568 7), (2607, Slice 12575 8), (2608, Slice 12583 6),
     (2609, Slice 12589 7), (2610, Slice 12596 7), (2611, Slice 12603 7), (2612, Slice 12610 7),
     (2613, Slice 12617 7), (2614, Slice 12624 6), (2615, Slice 12630 6), (2616, Slice 12636 6),
     (2617, Slice 12642 7), (2618, Slice 12649 7), (2619, Slice 12656 7), (2620, Slice 12663 8),
     (2621, Slice 12671 7), (2622, Slice 12678 6), (2623, Slice 12684 7), (2624, Slice 12691 6),
     (2625, Slice 12697 7), (2626, Slice 12704 7), (2627, Slice 12711 7), (2628, Slice 12718 6),
     (2629, Slice 12724 7), (2630, Slice 12731 7), (2631, Slice 12738 8), (2632, Slice 12746 7),
     (2633, Slice 12753 6), (2634, Slice 12759 7), (2635, Slice 12766 6), (2636, Slice 12772 7),
     (2637, Slice 12779 7), (2638, Slice 12786 7), (2639, Slice 12793 6), (2640, Slice 12799 7),
     (2641, Slice 12806 8), (2642, Slice 12814 7), (2643, Slice 12821 7), (2644, Slice 12828 8),
     (2645, Slice 12836 7), (2646, Slice 12843 7), (2647, Slice 12850 7), (2648, Slice 12857 8),
     (2649, Slice 12865 7), (2650, Slice 12872 6), (2651, Slice 12878 7), (2652, Slice 12885 6),
     (2653, Slice 12891 7), (2654, Slice 12898 7), (2655, Slice 12905 7), (2656, Slice 12912 6),
     (2657, Slice 12918 7), (2658, Slice 12925 7), (2659, Slice 12932 7), (2660, Slice 12939 7),
     (2661, Slice 12946 8), (2662, Slice 12954 7), (2663, Slice 12961 6), (2664, Slice 12967 7),
     (2665, Slice 12974 6), (2666, Slice 12980 7), (2667, Slice 12987 7), (2668, Slice 12994 7),
     (2669, Slice 13001 6), (2670, Slice 13007 6), (2671, Slice 13013 7), (2672, Slice 13020 6),
     (2673, Slice 13026 7), (2674, Slice 13033 7), (2675, Slice 13040 7), (2676, Slice 13047 5),
     (2677, Slice 13052 6), (2678, Slice 13058 6), (2679, Slice 13064 6), (2680, Slice 13070 6),
     (2681, Slice 13076 6), (2682, Slice 13082 6), (2683, Slice 13088 6), (2684, Slice 13094 7),
     (2685, Slice 13101 6), (2686, Slice 13107 6), (2687, Slice 13113 7), (2688, Slice 13120 6),
     (2689, Slice 13126 7), (2690, Slice 13133 6), (2691, Slice 13139 6), (2692, Slice 13145 7),
     (2693, Slice 13152 6), (2694, Slice 13158 8), (2695, Slice 13166 8), (2696, Slice 13174 7),
     (2697, Slice 13181 7), (2698, Slice 13188 8), (2699, Slice 13196 7), (2700, Slice 13203 8),
     (2701, Slice 13211 7), (2702, Slice 13218 7), (2703, Slice 13225 8), (2704, Slice 13233 7),
     (2705, Slice 13240 7), (2706, Slice 13247 7), (2707, Slice 13254 8), (2708, Slice 13262 7),
     (2709, Slice 13269 6), (2710, Slice 13275 7), (2711, Slice 13282 6), (2712, Slice 13288 7),
     (2713, Slice 13295 7), (2714, Slice 13302 7), (2715, Slice 13309 6), (2716, Slice 13315 7),
     (2717, Slice 13322 7), (2718, Slice 13329 7)]"

text \<open>Lines 7211 to 7346.\<close>

definition ts_field_map_slices_19 :: "(nat \<times> TSMapSlice) list" where
  "ts_field_map_slices_19 =
    [(2719, Slice 13336 7), (2720, Slice 13343 7), (2721, Slice 13350 6), (2722, Slice 13356 6),
     (2723, Slice 13362 7), (2724, Slice 13369 6), (2725, Slice 13375 7), (2726, Slice 13382 2),
     (2727, Slice 13384 9), (2728, Slice 13393 8), (2729, Slice 13401 8), (2730, Slice 13409 9),
     (2731, Slice 13418 8), (2732, Slice 13426 8), (2733, Slice 13434 8), (2734, Slice 13442 9),
     (2735, Slice 13451 8), (2736, Slice 13459 7), (2737, Slice 13466 8), (2738, Slice 13474 7),
     (2739, Slice 13481 8), (2740, Slice 13489 8), (2741, Slice 13497 8), (2742, Slice 13505 7),
     (2743, Slice 13512 8), (2744, Slice 13520 8), (2745, Slice 13528 8), (2746, Slice 13536 8),
     (2747, Slice 13544 9), (2748, Slice 13553 8), (2749, Slice 13561 7), (2750, Slice 13568 8),
     (2751, Slice 13576 7), (2752, Slice 13583 8), (2753, Slice 13591 8), (2754, Slice 13599 8),
     (2755, Slice 13607 7), (2756, Slice 13614 7), (2757, Slice 13621 8), (2758, Slice 13629 7),
     (2759, Slice 13636 8), (2760, Slice 13644 8), (2761, Slice 13652 8), (2762, Slice 13660 6),
     (2763, Slice 13666 7), (2764, Slice 13673 7), (2765, Slice 13680 7), (2766, Slice 13687 7),
     (2767, Slice 13694 7), (2768, Slice 13701 7), (2769, Slice 13708 7), (2770, Slice 13715 8),
     (2771, Slice 13723 7), (2772, Slice 13730 7), (2773, Slice 13737 8), (2774, Slice 13745 7),
     (2775, Slice 13752 8), (2776, Slice 13760 7), (2777, Slice 13767 7), (2778, Slice 13774 8),
     (2779, Slice 13782 7), (2780, Slice 13789 8), (2781, Slice 13797 8), (2782, Slice 13805 7),
     (2783, Slice 13812 7), (2784, Slice 13819 8), (2785, Slice 13827 7), (2786, Slice 13834 8),
     (2787, Slice 13842 7), (2788, Slice 13849 7), (2789, Slice 13856 8), (2790, Slice 13864 7),
     (2791, Slice 13871 7), (2792, Slice 13878 7), (2793, Slice 13885 8), (2794, Slice 13893 7),
     (2795, Slice 13900 6), (2796, Slice 13906 7), (2797, Slice 13913 6), (2798, Slice 13919 7),
     (2799, Slice 13926 7), (2800, Slice 13933 7), (2801, Slice 13940 6), (2802, Slice 13946 7),
     (2803, Slice 13953 7), (2804, Slice 13960 8), (2805, Slice 13968 8), (2806, Slice 13976 8),
     (2807, Slice 13984 7), (2808, Slice 13991 7), (2809, Slice 13998 8), (2810, Slice 14006 7),
     (2811, Slice 14013 7), (2812, Slice 14020 9), (2813, Slice 14029 9), (2814, Slice 14038 8),
     (2815, Slice 14046 8), (2816, Slice 14054 9), (2817, Slice 14063 8), (2818, Slice 14071 9),
     (2819, Slice 14080 8), (2820, Slice 14088 8), (2821, Slice 14096 9), (2822, Slice 14105 8),
     (2823, Slice 14113 8), (2824, Slice 14121 8), (2825, Slice 14129 9), (2826, Slice 14138 8),
     (2827, Slice 14146 7), (2828, Slice 14153 8), (2829, Slice 14161 7), (2830, Slice 14168 8),
     (2831, Slice 14176 8), (2832, Slice 14184 8), (2833, Slice 14192 7), (2834, Slice 14199 8),
     (2835, Slice 14207 8), (2836, Slice 14215 8), (2837, Slice 14223 8), (2838, Slice 14231 8),
     (2839, Slice 14239 7), (2840, Slice 14246 7), (2841, Slice 14253 8), (2842, Slice 14261 7),
     (2843, Slice 14268 8), (2844, Slice 14276 9), (2845, Slice 14285 9), (2846, Slice 14294 9),
     (2847, Slice 14303 8), (2848, Slice 14311 8), (2849, Slice 14319 9), (2850, Slice 14328 8),
     (2851, Slice 14336 8), (2852, Slice 14344 3), (2853, Slice 14347 9), (2854, Slice 14356 3)]"

lemmas ts_field_map_slices_parts =
  ts_field_map_slices_1_def ts_field_map_slices_2_def ts_field_map_slices_3_def
  ts_field_map_slices_4_def ts_field_map_slices_5_def ts_field_map_slices_6_def
  ts_field_map_slices_7_def ts_field_map_slices_8_def ts_field_map_slices_9_def
  ts_field_map_slices_10_def ts_field_map_slices_11_def ts_field_map_slices_12_def
  ts_field_map_slices_13_def ts_field_map_slices_14_def ts_field_map_slices_15_def
  ts_field_map_slices_16_def ts_field_map_slices_17_def ts_field_map_slices_18_def
  ts_field_map_slices_19_def

definition field_slice_entries :: "(nat \<times> TSMapSlice) list" where
  "field_slice_entries =
     ts_field_map_slices_1 @ ts_field_map_slices_2 @ ts_field_map_slices_3 @
     ts_field_map_slices_4 @ ts_field_map_slices_5 @ ts_field_map_slices_6 @
     ts_field_map_slices_7 @ ts_field_map_slices_8 @ ts_field_map_slices_9 @
     ts_field_map_slices_10 @ ts_field_map_slices_11 @ ts_field_map_slices_12 @
     ts_field_map_slices_13 @ ts_field_map_slices_14 @ ts_field_map_slices_15 @
     ts_field_map_slices_16 @ ts_field_map_slices_17 @ ts_field_map_slices_18 @
     ts_field_map_slices_19"

definition ts_field_map_slices :: "TSMapSlice list" where
  "ts_field_map_slices = designated PRODUCTION_ID_COUNT (Slice 0 0) field_slice_entries"

section \<open>Aliases\<close>

definition MAX_ALIAS_SEQUENCE_LENGTH :: nat where "MAX_ALIAS_SEQUENCE_LENGTH = 17"

text \<open>The aliases of each production, by the child they name; a row of zeros has none.\<close>

text \<open>Lines 24545 to 24607.\<close>

definition alias_entries :: "(nat \<times> (nat \<times> TSSymbol) list) list" where
  "alias_entries =
    [(0, [(0, 0)]), (1, [(0, alias_sym_internal)]), (6, [(0, alias_sym_field)]),
     (15, [(0, alias_sym_ref_to)]), (24, [(0, alias_sym_deref_sign)]),
     (44, [(2, alias_sym_partly)]), (105, [(2, alias_sym_target)]), (117, [(0, alias_sym_fold_eq)]),
     (118, [(0, alias_sym_fold_plus)]), (119, [(0, alias_sym_fold_minus)]),
     (120, [(0, alias_sym_fold_mod)]), (121, [(0, alias_sym_fold_mul)]),
     (122, [(0, alias_sym_fold_xor)]), (123, [(0, alias_sym_fold_div)]),
     (124, [(0, alias_sym_fold_power)]), (125, [(0, alias_sym_fold_and)]),
     (126, [(0, alias_sym_fold_ne)]), (127, [(0, alias_sym_fold_lt)]),
     (128, [(0, alias_sym_fold_gt)]), (129, [(0, alias_sym_fold_le)]),
     (130, [(0, alias_sym_fold_ge)])]"

definition alias_row :: "(nat \<times> TSSymbol) list \<Rightarrow> TSSymbol list" where
  "alias_row as = designated MAX_ALIAS_SEQUENCE_LENGTH 0 as"

definition ts_alias_sequences :: "TSSymbol list list" where
  "ts_alias_sequences =
     designated PRODUCTION_ID_COUNT (alias_row []) (map (map_prod id alias_row) alias_entries)"

definition ts_non_terminal_alias_map :: "nat list" where
  "ts_non_terminal_alias_map = [0]"

end
