(* ===== verification/Field_Map.thy ===== *)
theory Field_Map
  imports Field_Tables
begin

text \<open>
  \<open>ts_field_map_entries\<close> of \<open>src/crates/tree-sitter/src/parser.c\<close>: for each kind of production the
  children with their fields. A designator opens the entries of one kind; the table is cut into parts
  of at most 150 lines of the source.
\<close>

text \<open>A child that inherits takes the fields of its own children.\<close>

datatype TSFieldMapEntry = Field (field_id: TSFieldId) (child_index: nat) (inherited: bool)

text \<open>Lines 7350 to 7498.\<close>

definition ts_field_map_entries_1 :: "(nat \<times> TSFieldMapEntry list) list" where
  "ts_field_map_entries_1 =
    [(0, [Field field_rule 0 False]), (1, [Field field_THIS 0 False]),
     (2, [Field field_SUPER 0 False]), (3, [Field field_name 1 False]),
     (4, [Field field_variable 0 False]), (5, [Field field_invocation 0 False]),
     (6, [Field field_resources 0 False]), (7, [Field field_global_variables 0 False]),
     (8, [Field field_access_decls 0 False]), (9, [Field field_config_init 0 False]),
     (10, [Field field_rule 2 True]), (11, [Field field_rule 0 True, Field field_rule 1 True]),
     (13, [Field field_name 0 False, Field field_spec 2 False]), (15, [Field field_name 0 False]),
     (16, [Field field_path 0 False]), (17, [Field field_int 0 False]),
     (18, [Field field_value 0 False]),
     (19, [Field field_target 1 False, Field field_variable 0 False]),
     (21, [Field field_access 1 False, Field field_variable 0 False]),
     (23, [Field field_body 2 False, Field field_name 1 False]),
     (25, [Field field_directives 2 False, Field field_name 1 False]),
     (27, [Field field_name 1 False, Field field_variables 2 False]),
     (29, [Field field_name 2 False, Field field_spec 1 False]),
     (31, [Field field_name 2 False, Field field_qualifier 1 False]),
     (33, [Field field_method 2 False, Field field_name 1 False]),
     (35, [Field field_modifier 1 False, Field field_name 2 False]),
     (37, [Field field_methods 2 False, Field field_name 1 False]),
     (39, [Field field_name 1 False, Field field_prototype 2 False]),
     (41, [Field field_declarations 2 False, Field field_name 1 False]),
     (43, [Field field_access_decls 2 True, Field field_config_init 2 True, Field field_global_variables 2 True, Field field_name 1 False, Field field_resources 2 True]),
     (48, [Field field_access_decls 0 True, Field field_access_decls 1 True, Field field_config_init 0 True, Field field_config_init 1 True, Field field_global_variables 0 True, Field field_global_variables 1 True, Field field_resources 0 True, Field field_resources 1 True]),
     (56, [Field field_internal 1 False, Field field_name 2 False]),
     (58, [Field field_elements 2 False, Field field_name 1 False]),
     (60, [Field field_name 2 False, Field field_pragmas 0 False]),
     (62, [Field field_module 2 False, Field field_name 3 False]),
     (64, [Field field_level 1 False, Field field_message 3 False]),
     (66, [Field field_init 3 False, Field field_name 0 False, Field field_spec 2 False]),
     (69, [Field field_ref_count 0 False]),
     (70, [Field field_name 1 False, Field field_return_type 3 False]),
     (72, [Field field_adress 1 False, Field field_offset 2 False]),
     (74, [Field field_retain 1 False]),
     (75, [Field field_extra 1 False, Field field_first 0 False]),
     (77, [Field field_type 1 False, Field field_variables 0 False]),
     (79, [Field field_constant 1 False]),
     (80, [Field field_located_at 0 False, Field field_spec_init 1 False]),
     (82, [Field field_access 1 False]), (83, [Field field_name 0 False, Field field_type 1 False]),
     (85, [Field field_constant_or_retain 1 False]),
     (86, [Field field_name 0 False, Field field_name 1 True]),
     (88, [Field field_spec 0 False, Field field_type 1 False]), (90, [Field field_value 1 False]),
     (91, [Field field_expr 1 False, Field field_operator 0 False]),
     (93, [Field field_body 1 False]), (94, [Field field_clause 1 False])]"

text \<open>Lines 7499 to 7648.\<close>

definition ts_field_map_entries_2 :: "(nat \<times> TSFieldMapEntry list) list" where
  "ts_field_map_entries_2 =
    [(95, [Field field_path 1 False]), (96, [Field field_function 0 False]),
     (97, [Field field_path 0 False, Field field_target 2 False]),
     (99, [Field field_body 3 False, Field field_directives 2 False, Field field_name 1 False]),
     (102, [Field field_directives 2 False, Field field_name 1 False, Field field_variables 3 False]),
     (105, [Field field_body 3 False, Field field_name 1 False, Field field_variables 2 False]),
     (108, [Field field_body 3 False, Field field_name 2 False, Field field_spec 1 False]),
     (111, [Field field_directives 3 False, Field field_name 2 False, Field field_spec 1 False]),
     (114, [Field field_name 2 False, Field field_spec 1 False, Field field_variables 3 False]),
     (117, [Field field_body 3 False, Field field_name 2 False, Field field_qualifier 1 False]),
     (120, [Field field_name 2 False, Field field_qualifier 1 False, Field field_variables 3 False]),
     (123, [Field field_directives 3 False, Field field_name 2 False, Field field_qualifier 1 False]),
     (126, [Field field_method 3 False, Field field_name 2 False, Field field_qualifier 1 False]),
     (129, [Field field_implements 3 False, Field field_name 1 False]),
     (131, [Field field_extends 3 False, Field field_name 1 False]),
     (133, [Field field_body 3 False, Field field_name 1 False]),
     (135, [Field field_name 1 False, Field field_variables 3 False]),
     (137, [Field field_directives 3 False, Field field_name 1 False]),
     (139, [Field field_method 3 False, Field field_name 1 False]),
     (141, [Field field_method 3 False, Field field_name 1 False, Field field_variables 2 False]),
     (144, [Field field_directives 2 False, Field field_method 3 False, Field field_name 1 False]),
     (147, [Field field_body 3 False, Field field_method 2 False, Field field_name 1 False]),
     (150, [Field field_modifier 1 False, Field field_name 2 False, Field field_variables 3 False]),
     (153, [Field field_directives 3 False, Field field_modifier 1 False, Field field_name 2 False]),
     (156, [Field field_methods 3 False, Field field_modifier 1 False, Field field_name 2 False]),
     (159, [Field field_methods 3 False, Field field_name 1 False]),
     (161, [Field field_methods 3 False, Field field_name 1 False, Field field_variables 2 False]),
     (164, [Field field_directives 2 False, Field field_methods 3 False, Field field_name 1 False]),
     (167, [Field field_directives 2 False, Field field_name 1 False, Field field_prototype 3 False]),
     (170, [Field field_name 1 False, Field field_prototype 3 False]),
     (172, [Field field_body 3 False, Field field_declarations 2 False, Field field_name 1 False]),
     (175, [Field field_init 2 False, Field field_name 1 False]),
     (177, [Field field_elements 3 False, Field field_internal 1 False, Field field_name 2 False]),
     (180, [Field field_directives 3 False, Field field_internal 1 False, Field field_name 2 False]),
     (183, [Field field_directives 2 False, Field field_elements 3 False, Field field_name 1 False]),
     (186, [Field field_body 3 False, Field field_name 2 False, Field field_pragmas 0 False]),
     (189, [Field field_directives 3 False, Field field_name 2 False, Field field_pragmas 0 False]),
     (192, [Field field_name 2 False, Field field_pragmas 0 False, Field field_variables 3 False]),
     (195, [Field field_name 3 False, Field field_pragmas 0 False, Field field_spec 2 False]),
     (198, [Field field_name 3 False, Field field_pragmas 0 False, Field field_qualifier 2 False]),
     (201, [Field field_method 3 False, Field field_name 2 False, Field field_pragmas 0 False])]"

text \<open>Lines 7649 to 7795.\<close>

definition ts_field_map_entries_3 :: "(nat \<times> TSFieldMapEntry list) list" where
  "ts_field_map_entries_3 =
    [(204, [Field field_declarations 3 False, Field field_name 2 False, Field field_pragmas 0 False]),
     (207, [Field field_overlap 1 False]), (208, [Field field_located 0 False]),
     (209, [Field field_elem_type 0 False]),
     (210, [Field field_body 4 False, Field field_name 1 False, Field field_return_type 3 False]),
     (213, [Field field_directives 4 False, Field field_name 1 False, Field field_return_type 3 False]),
     (216, [Field field_name 1 False, Field field_return_type 3 False, Field field_variables 4 False]),
     (219, [Field field_instruction 2 False]), (220, [Field field_spec 1 False]),
     (221, [Field field_access 2 False, Field field_constant 1 False]),
     (223, [Field field_located_at 1 False, Field field_spec_init 2 False, Field field_variable_name 0 False]),
     (226, [Field field_name 0 True, Field field_name 1 True]),
     (228, [Field field__override 1 False, Field field_name 2 False]),
     (230, [Field field_access 1 False, Field field_name 2 False]),
     (232, [Field field_sign 1 False, Field field_value 2 False]),
     (234, [Field field_operator 2 False, Field field_param 1 False]),
     (236, [Field field_if_cond 1 False]),
     (237, [Field field_int 2 False, Field field_kind 0 False]),
     (239, [Field field_type 0 False, Field field_value 2 False]),
     (241, [Field field_kind 0 False, Field field_value 2 False]),
     (243, [Field field_left 0 False, Field field_right 2 False]),
     (245, [Field field_left 0 False, Field field_operator 1 False, Field field_right 2 False]),
     (248, [Field field_enum_path 0 False]), (249, [Field field_case_cond 1 False]),
     (250, [Field field_control_list 2 False, Field field_control_variable 1 False]),
     (252, [Field field_while_cond 1 False]), (253, [Field field_repeat_cond 2 False]),
     (254, [Field field_message 2 False]),
     (255, [Field field_body 1 False, Field field_clause 2 False]),
     (257, [Field field_function 0 False, Field field_params 2 False]),
     (259, [Field field_path 2 False]), (260, [Field field_index 2 False]),
     (261, [Field field_body 4 False, Field field_directives 2 False, Field field_name 1 False, Field field_variables 3 False]),
     (265, [Field field_name 2 False, Field field_return_type 4 False, Field field_spec 1 False]),
     (268, [Field field_body 4 False, Field field_directives 3 False, Field field_name 2 False, Field field_spec 1 False]),
     (272, [Field field_directives 3 False, Field field_name 2 False, Field field_spec 1 False, Field field_variables 4 False]),
     (276, [Field field_body 4 False, Field field_name 2 False, Field field_spec 1 False, Field field_variables 3 False]),
     (280, [Field field_implements 4 False, Field field_name 2 False, Field field_qualifier 1 False]),
     (283, [Field field_extends 4 False, Field field_name 2 False, Field field_qualifier 1 False]),
     (286, [Field field_body 4 False, Field field_name 2 False, Field field_qualifier 1 False]),
     (289, [Field field_name 2 False, Field field_qualifier 1 False, Field field_variables 4 False]),
     (292, [Field field_directives 4 False, Field field_name 2 False, Field field_qualifier 1 False]),
     (295, [Field field_method 4 False, Field field_name 2 False, Field field_qualifier 1 False]),
     (298, [Field field_body 4 False, Field field_name 2 False, Field field_qualifier 1 False, Field field_variables 3 False]),
     (302, [Field field_method 4 False, Field field_name 2 False, Field field_qualifier 1 False, Field field_variables 3 False])]"

text \<open>Lines 7796 to 7943.\<close>

definition ts_field_map_entries_4 :: "(nat \<times> TSFieldMapEntry list) list" where
  "ts_field_map_entries_4 =
    [(306, [Field field_body 4 False, Field field_directives 3 False, Field field_name 2 False, Field field_qualifier 1 False]),
     (310, [Field field_directives 3 False, Field field_name 2 False, Field field_qualifier 1 False, Field field_variables 4 False]),
     (314, [Field field_directives 3 False, Field field_method 4 False, Field field_name 2 False, Field field_qualifier 1 False]),
     (318, [Field field_body 4 False, Field field_method 3 False, Field field_name 2 False, Field field_qualifier 1 False]),
     (322, [Field field_body 4 False, Field field_implements 3 False, Field field_name 1 False]),
     (325, [Field field_implements 3 False, Field field_name 1 False, Field field_variables 4 False]),
     (328, [Field field_directives 4 False, Field field_implements 3 False, Field field_name 1 False]),
     (331, [Field field_implements 3 False, Field field_method 4 False, Field field_name 1 False]),
     (334, [Field field_body 4 False, Field field_extends 3 False, Field field_name 1 False]),
     (337, [Field field_extends 3 False, Field field_name 1 False, Field field_variables 4 False]),
     (340, [Field field_directives 4 False, Field field_extends 3 False, Field field_name 1 False]),
     (343, [Field field_extends 3 False, Field field_method 4 False, Field field_name 1 False]),
     (346, [Field field_access 2 False, Field field_retain 1 False]),
     (348, [Field field_retain 1 False, Field field_spec 2 False]),
     (350, [Field field_implements 4 False, Field field_name 1 False]),
     (352, [Field field_extends 4 False, Field field_name 1 False]),
     (354, [Field field_body 4 False, Field field_name 1 False]),
     (356, [Field field_body 4 False, Field field_name 1 False, Field field_variables 3 False]),
     (359, [Field field_method 4 False, Field field_name 1 False, Field field_variables 3 False]),
     (362, [Field field_body 4 False, Field field_directives 3 False, Field field_name 1 False]),
     (365, [Field field_directives 3 False, Field field_name 1 False, Field field_variables 4 False]),
     (368, [Field field_directives 3 False, Field field_method 4 False, Field field_name 1 False]),
     (371, [Field field_name 1 False, Field field_variables 4 False]),
     (373, [Field field_directives 4 False, Field field_name 1 False]),
     (375, [Field field_method 4 False, Field field_name 1 False]),
     (377, [Field field_body 4 False, Field field_method 3 False, Field field_name 1 False]),
     (380, [Field field_body 4 False, Field field_name 1 False, Field field_variables 2 False]),
     (383, [Field field_body 4 False, Field field_method 3 False, Field field_name 1 False, Field field_variables 2 False]),
     (387, [Field field_body 4 False, Field field_directives 2 False, Field field_name 1 False]),
     (390, [Field field_directives 2 False, Field field_method 4 False, Field field_name 1 False, Field field_variables 3 False]),
     (394, [Field field_body 4 False, Field field_directives 2 False, Field field_method 3 False, Field field_name 1 False]),
     (398, [Field field_body 4 False, Field field_method 2 False, Field field_name 1 False]),
     (401, [Field field_implements 4 False, Field field_modifier 1 False, Field field_name 2 False]),
     (404, [Field field_extends 4 False, Field field_modifier 1 False, Field field_name 2 False]),
     (407, [Field field_modifier 1 False, Field field_name 2 False, Field field_variables 4 False]),
     (410, [Field field_methods 4 False, Field field_modifier 1 False, Field field_name 2 False]),
     (413, [Field field_methods 4 False, Field field_modifier 1 False, Field field_name 2 False, Field field_variables 3 False])]"

text \<open>Lines 7944 to 8090.\<close>

definition ts_field_map_entries_5 :: "(nat \<times> TSFieldMapEntry list) list" where
  "ts_field_map_entries_5 =
    [(417, [Field field_directives 3 False, Field field_modifier 1 False, Field field_name 2 False, Field field_variables 4 False]),
     (421, [Field field_directives 3 False, Field field_methods 4 False, Field field_modifier 1 False, Field field_name 2 False]),
     (425, [Field field_implements 3 False, Field field_methods 4 False, Field field_name 1 False]),
     (428, [Field field_extends 3 False, Field field_methods 4 False, Field field_name 1 False]),
     (431, [Field field_methods 4 False, Field field_name 1 False, Field field_variables 3 False]),
     (434, [Field field_methods 4 False, Field field_name 1 False]),
     (436, [Field field_directives 2 False, Field field_implements 4 False, Field field_name 1 False]),
     (439, [Field field_directives 2 False, Field field_extends 4 False, Field field_name 1 False]),
     (442, [Field field_directives 2 False, Field field_name 1 False, Field field_variables 4 False]),
     (445, [Field field_directives 2 False, Field field_methods 4 False, Field field_name 1 False]),
     (448, [Field field_directives 2 False, Field field_methods 4 False, Field field_name 1 False, Field field_variables 3 False]),
     (452, [Field field_extends 3 False, Field field_name 1 False, Field field_prototype 4 False]),
     (455, [Field field_name 2 False]),
     (456, [Field field_directives 2 False, Field field_name 1 False, Field field_prototype 4 False]),
     (459, [Field field_access 3 False, Field field_name 1 False]),
     (461, [Field field_directives 3 False, Field field_elements 4 False, Field field_internal 1 False, Field field_name 2 False]),
     (465, [Field field_name 2 False, Field field_pragmas 0 False, Field field_return_type 4 False]),
     (468, [Field field_body 4 False, Field field_directives 3 False, Field field_name 2 False, Field field_pragmas 0 False]),
     (472, [Field field_directives 3 False, Field field_name 2 False, Field field_pragmas 0 False, Field field_variables 4 False]),
     (476, [Field field_body 4 False, Field field_name 2 False, Field field_pragmas 0 False, Field field_variables 3 False]),
     (480, [Field field_body 4 False, Field field_name 3 False, Field field_pragmas 0 False, Field field_spec 2 False]),
     (484, [Field field_directives 4 False, Field field_name 3 False, Field field_pragmas 0 False, Field field_spec 2 False]),
     (488, [Field field_name 3 False, Field field_pragmas 0 False, Field field_spec 2 False, Field field_variables 4 False]),
     (492, [Field field_body 4 False, Field field_name 3 False, Field field_pragmas 0 False, Field field_qualifier 2 False]),
     (496, [Field field_name 3 False, Field field_pragmas 0 False, Field field_qualifier 2 False, Field field_variables 4 False]),
     (500, [Field field_directives 4 False, Field field_name 3 False, Field field_pragmas 0 False, Field field_qualifier 2 False]),
     (504, [Field field_method 4 False, Field field_name 3 False, Field field_pragmas 0 False, Field field_qualifier 2 False]),
     (508, [Field field_implements 4 False, Field field_name 2 False, Field field_pragmas 0 False]),
     (511, [Field field_extends 4 False, Field field_name 2 False, Field field_pragmas 0 False]),
     (514, [Field field_body 4 False, Field field_name 2 False, Field field_pragmas 0 False]),
     (517, [Field field_name 2 False, Field field_pragmas 0 False, Field field_variables 4 False]),
     (520, [Field field_directives 4 False, Field field_name 2 False, Field field_pragmas 0 False]),
     (523, [Field field_method 4 False, Field field_name 2 False, Field field_pragmas 0 False]),
     (526, [Field field_method 4 False, Field field_name 2 False, Field field_pragmas 0 False, Field field_variables 3 False])]"

text \<open>Lines 8091 to 8238.\<close>

definition ts_field_map_entries_6 :: "(nat \<times> TSFieldMapEntry list) list" where
  "ts_field_map_entries_6 =
    [(530, [Field field_directives 3 False, Field field_method 4 False, Field field_name 2 False, Field field_pragmas 0 False]),
     (534, [Field field_body 4 False, Field field_method 3 False, Field field_name 2 False, Field field_pragmas 0 False]),
     (538, [Field field_body 4 False, Field field_declarations 3 False, Field field_name 2 False, Field field_pragmas 0 False]),
     (542, [Field field_length 2 False]), (543, [Field field_overlap 2 False]),
     (544, [Field field_located 0 False, Field field_multibits 1 False]),
     (546, [Field field_range 2 False, Field field_type 0 False]),
     (548, [Field field_body 5 False, Field field_directives 4 False, Field field_name 1 False, Field field_return_type 3 False]),
     (552, [Field field_directives 4 False, Field field_name 1 False, Field field_return_type 3 False, Field field_variables 5 False]),
     (556, [Field field_body 5 False, Field field_name 1 False, Field field_return_type 3 False, Field field_variables 4 False]),
     (560, [Field field_instruction 2 False, Field field_params 3 False]),
     (562, [Field field_instruction 2 False, Field field_result 3 False]),
     (564, [Field field_instruction 3 False, Field field_type_ref 2 False]),
     (566, [Field field_type 1 False]), (567, [Field field_edge 2 False, Field field_type 1 False]),
     (569, [Field field_init 2 False, Field field_spec 1 False]),
     (571, [Field field__override 2 False, Field field_modifier 1 False, Field field_name 3 False]),
     (574, [Field field_body 3 False, Field field_modifier 1 False, Field field_name 2 False]),
     (577, [Field field__override 1 False, Field field_body 3 False, Field field_name 2 False]),
     (580, [Field field__override 1 False, Field field_name 2 False, Field field_variables 3 False]),
     (583, [Field field_access 1 False, Field field_modifier 2 False, Field field_name 3 False]),
     (586, [Field field__override 2 False, Field field_access 1 False, Field field_name 3 False]),
     (589, [Field field_access 1 False, Field field_body 3 False, Field field_name 2 False]),
     (592, [Field field_access 1 False, Field field_name 2 False, Field field_variables 3 False]),
     (595, [Field field_value 2 False]),
     (596, [Field field_if_body 3 False, Field field_if_cond 1 False]),
     (598, [Field field_else_if 3 False, Field field_if_cond 1 False]),
     (600, [Field field_case_of 0 False]),
     (601, [Field field_case_cond 1 False, Field field_case_selection 3 False]),
     (603, [Field field_body 3 False, Field field_control_list 2 False, Field field_control_variable 1 False]),
     (606, [Field field_while_body 3 False, Field field_while_cond 1 False]),
     (608, [Field field_repeat_body 1 False, Field field_repeat_cond 3 False]),
     (610, [Field field_variable 2 False]),
     (611, [Field field_param 0 False, Field field_value 2 False]),
     (613, [Field field_function 0 False, Field field_params 2 False, Field field_params 3 False]),
     (616, [Field field_modifier 2 False, Field field_name 3 False, Field field_pragmas 0 False]),
     (619, [Field field__override 2 False, Field field_name 3 False, Field field_pragmas 0 False]),
     (622, [Field field_access 2 False, Field field_name 3 False, Field field_pragmas 0 False]),
     (625, [Field field_body 5 False, Field field_name 2 False, Field field_return_type 4 False, Field field_spec 1 False]),
     (629, [Field field_directives 5 False, Field field_name 2 False, Field field_return_type 4 False, Field field_spec 1 False]),
     (633, [Field field_name 2 False, Field field_return_type 4 False, Field field_spec 1 False, Field field_variables 5 False])]"

text \<open>Lines 8239 to 8386.\<close>

definition ts_field_map_entries_7 :: "(nat \<times> TSFieldMapEntry list) list" where
  "ts_field_map_entries_7 =
    [(637, [Field field_body 5 False, Field field_directives 3 False, Field field_name 2 False, Field field_spec 1 False, Field field_variables 4 False]),
     (642, [Field field_body 5 False, Field field_implements 4 False, Field field_name 2 False, Field field_qualifier 1 False]),
     (646, [Field field_implements 4 False, Field field_name 2 False, Field field_qualifier 1 False, Field field_variables 5 False]),
     (650, [Field field_directives 5 False, Field field_implements 4 False, Field field_name 2 False, Field field_qualifier 1 False]),
     (654, [Field field_implements 4 False, Field field_method 5 False, Field field_name 2 False, Field field_qualifier 1 False]),
     (658, [Field field_body 5 False, Field field_extends 4 False, Field field_name 2 False, Field field_qualifier 1 False]),
     (662, [Field field_extends 4 False, Field field_name 2 False, Field field_qualifier 1 False, Field field_variables 5 False]),
     (666, [Field field_directives 5 False, Field field_extends 4 False, Field field_name 2 False, Field field_qualifier 1 False]),
     (670, [Field field_extends 4 False, Field field_method 5 False, Field field_name 2 False, Field field_qualifier 1 False]),
     (674, [Field field_implements 5 False, Field field_name 2 False, Field field_qualifier 1 False]),
     (677, [Field field_extends 5 False, Field field_name 2 False, Field field_qualifier 1 False]),
     (680, [Field field_body 5 False, Field field_name 2 False, Field field_qualifier 1 False]),
     (683, [Field field_body 5 False, Field field_name 2 False, Field field_qualifier 1 False, Field field_variables 4 False]),
     (687, [Field field_method 5 False, Field field_name 2 False, Field field_qualifier 1 False, Field field_variables 4 False]),
     (691, [Field field_body 5 False, Field field_directives 4 False, Field field_name 2 False, Field field_qualifier 1 False]),
     (695, [Field field_directives 4 False, Field field_name 2 False, Field field_qualifier 1 False, Field field_variables 5 False]),
     (699, [Field field_directives 4 False, Field field_method 5 False, Field field_name 2 False, Field field_qualifier 1 False]),
     (703, [Field field_name 2 False, Field field_qualifier 1 False, Field field_variables 5 False]),
     (706, [Field field_directives 5 False, Field field_name 2 False, Field field_qualifier 1 False]),
     (709, [Field field_method 5 False, Field field_name 2 False, Field field_qualifier 1 False]),
     (712, [Field field_body 5 False, Field field_method 4 False, Field field_name 2 False, Field field_qualifier 1 False]),
     (716, [Field field_body 5 False, Field field_name 2 False, Field field_qualifier 1 False, Field field_variables 3 False]),
     (720, [Field field_body 5 False, Field field_method 4 False, Field field_name 2 False, Field field_qualifier 1 False, Field field_variables 3 False]),
     (725, [Field field_body 5 False, Field field_directives 3 False, Field field_name 2 False, Field field_qualifier 1 False]),
     (729, [Field field_body 5 False, Field field_directives 3 False, Field field_name 2 False, Field field_qualifier 1 False, Field field_variables 4 False]),
     (734, [Field field_directives 3 False, Field field_method 5 False, Field field_name 2 False, Field field_qualifier 1 False, Field field_variables 4 False]),
     (739, [Field field_body 5 False, Field field_directives 3 False, Field field_method 4 False, Field field_name 2 False, Field field_qualifier 1 False]),
     (744, [Field field_body 5 False, Field field_method 3 False, Field field_name 2 False, Field field_qualifier 1 False]),
     (748, [Field field_body 5 False, Field field_implements 3 False, Field field_name 1 False]),
     (751, [Field field_body 5 False, Field field_implements 3 False, Field field_name 1 False, Field field_variables 4 False])]"

text \<open>Lines 8387 to 8536.\<close>

definition ts_field_map_entries_8 :: "(nat \<times> TSFieldMapEntry list) list" where
  "ts_field_map_entries_8 =
    [(755, [Field field_implements 3 False, Field field_method 5 False, Field field_name 1 False, Field field_variables 4 False]),
     (759, [Field field_body 5 False, Field field_directives 4 False, Field field_implements 3 False, Field field_name 1 False]),
     (763, [Field field_directives 4 False, Field field_implements 3 False, Field field_name 1 False, Field field_variables 5 False]),
     (767, [Field field_directives 4 False, Field field_implements 3 False, Field field_method 5 False, Field field_name 1 False]),
     (771, [Field field_implements 3 False, Field field_name 1 False, Field field_variables 5 False]),
     (774, [Field field_directives 5 False, Field field_implements 3 False, Field field_name 1 False]),
     (777, [Field field_implements 3 False, Field field_method 5 False, Field field_name 1 False]),
     (780, [Field field_body 5 False, Field field_implements 3 False, Field field_method 4 False, Field field_name 1 False]),
     (784, [Field field_extends 3 False, Field field_implements 5 False, Field field_name 1 False]),
     (787, [Field field_body 5 False, Field field_extends 3 False, Field field_name 1 False]),
     (790, [Field field_body 5 False, Field field_extends 3 False, Field field_name 1 False, Field field_variables 4 False]),
     (794, [Field field_extends 3 False, Field field_method 5 False, Field field_name 1 False, Field field_variables 4 False]),
     (798, [Field field_body 5 False, Field field_directives 4 False, Field field_extends 3 False, Field field_name 1 False]),
     (802, [Field field_directives 4 False, Field field_extends 3 False, Field field_name 1 False, Field field_variables 5 False]),
     (806, [Field field_directives 4 False, Field field_extends 3 False, Field field_method 5 False, Field field_name 1 False]),
     (810, [Field field_extends 3 False, Field field_name 1 False, Field field_variables 5 False]),
     (813, [Field field_directives 5 False, Field field_extends 3 False, Field field_name 1 False]),
     (816, [Field field_extends 3 False, Field field_method 5 False, Field field_name 1 False]),
     (819, [Field field_body 5 False, Field field_extends 3 False, Field field_method 4 False, Field field_name 1 False]),
     (823, [Field field_body 5 False, Field field_implements 4 False, Field field_name 1 False]),
     (826, [Field field_implements 4 False, Field field_name 1 False, Field field_variables 5 False]),
     (829, [Field field_directives 5 False, Field field_implements 4 False, Field field_name 1 False]),
     (832, [Field field_implements 4 False, Field field_method 5 False, Field field_name 1 False]),
     (835, [Field field_body 5 False, Field field_extends 4 False, Field field_name 1 False]),
     (838, [Field field_extends 4 False, Field field_name 1 False, Field field_variables 5 False]),
     (841, [Field field_directives 5 False, Field field_extends 4 False, Field field_name 1 False]),
     (844, [Field field_extends 4 False, Field field_method 5 False, Field field_name 1 False]),
     (847, [Field field_body 5 False, Field field_name 1 False, Field field_variables 3 False]),
     (850, [Field field_body 5 False, Field field_method 4 False, Field field_name 1 False, Field field_variables 3 False]),
     (854, [Field field_body 5 False, Field field_directives 3 False, Field field_name 1 False]),
     (857, [Field field_body 5 False, Field field_directives 3 False, Field field_name 1 False, Field field_variables 4 False]),
     (861, [Field field_directives 3 False, Field field_method 5 False, Field field_name 1 False, Field field_variables 4 False]),
     (865, [Field field_body 5 False, Field field_directives 3 False, Field field_method 4 False, Field field_name 1 False]),
     (869, [Field field_implements 5 False, Field field_name 1 False])]"

text \<open>Lines 8537 to 8686.\<close>

definition ts_field_map_entries_9 :: "(nat \<times> TSFieldMapEntry list) list" where
  "ts_field_map_entries_9 =
    [(871, [Field field_body 5 False, Field field_name 1 False]),
     (873, [Field field_body 5 False, Field field_name 1 False, Field field_variables 4 False]),
     (876, [Field field_method 5 False, Field field_name 1 False, Field field_variables 4 False]),
     (879, [Field field_body 5 False, Field field_directives 4 False, Field field_name 1 False]),
     (882, [Field field_directives 4 False, Field field_name 1 False, Field field_variables 5 False]),
     (885, [Field field_directives 4 False, Field field_method 5 False, Field field_name 1 False]),
     (888, [Field field_name 1 False, Field field_variables 5 False]),
     (890, [Field field_directives 5 False, Field field_name 1 False]),
     (892, [Field field_method 5 False, Field field_name 1 False]),
     (894, [Field field_body 5 False, Field field_method 4 False, Field field_name 1 False]),
     (897, [Field field_body 5 False, Field field_method 3 False, Field field_name 1 False]),
     (900, [Field field_body 5 False, Field field_method 3 False, Field field_name 1 False, Field field_variables 2 False]),
     (904, [Field field_body 5 False, Field field_directives 2 False, Field field_name 1 False, Field field_variables 3 False]),
     (908, [Field field_body 5 False, Field field_directives 2 False, Field field_method 4 False, Field field_name 1 False, Field field_variables 3 False]),
     (913, [Field field_body 5 False, Field field_directives 2 False, Field field_method 3 False, Field field_name 1 False]),
     (917, [Field field_implements 4 False, Field field_modifier 1 False, Field field_name 2 False, Field field_variables 5 False]),
     (921, [Field field_implements 4 False, Field field_methods 5 False, Field field_modifier 1 False, Field field_name 2 False]),
     (925, [Field field_extends 4 False, Field field_modifier 1 False, Field field_name 2 False, Field field_variables 5 False]),
     (929, [Field field_extends 4 False, Field field_methods 5 False, Field field_modifier 1 False, Field field_name 2 False]),
     (933, [Field field_implements 5 False, Field field_modifier 1 False, Field field_name 2 False]),
     (936, [Field field_extends 5 False, Field field_modifier 1 False, Field field_name 2 False]),
     (939, [Field field_methods 5 False, Field field_modifier 1 False, Field field_name 2 False, Field field_variables 4 False]),
     (943, [Field field_modifier 1 False, Field field_name 2 False, Field field_variables 5 False]),
     (946, [Field field_methods 5 False, Field field_modifier 1 False, Field field_name 2 False]),
     (949, [Field field_directives 3 False, Field field_implements 5 False, Field field_modifier 1 False, Field field_name 2 False]),
     (953, [Field field_directives 3 False, Field field_extends 5 False, Field field_modifier 1 False, Field field_name 2 False]),
     (957, [Field field_directives 3 False, Field field_modifier 1 False, Field field_name 2 False, Field field_variables 5 False]),
     (961, [Field field_directives 3 False, Field field_methods 5 False, Field field_modifier 1 False, Field field_name 2 False]),
     (965, [Field field_directives 3 False, Field field_methods 5 False, Field field_modifier 1 False, Field field_name 2 False, Field field_variables 4 False]),
     (970, [Field field_implements 3 False, Field field_methods 5 False, Field field_name 1 False, Field field_variables 4 False]),
     (974, [Field field_implements 3 False, Field field_methods 5 False, Field field_name 1 False]),
     (977, [Field field_extends 3 False, Field field_methods 5 False, Field field_name 1 False, Field field_variables 4 False]),
     (981, [Field field_extends 3 False, Field field_methods 5 False, Field field_name 1 False]),
     (984, [Field field_implements 4 False, Field field_methods 5 False, Field field_name 1 False])]"

text \<open>Lines 8687 to 8833.\<close>

definition ts_field_map_entries_10 :: "(nat \<times> TSFieldMapEntry list) list" where
  "ts_field_map_entries_10 =
    [(987, [Field field_extends 4 False, Field field_methods 5 False, Field field_name 1 False]),
     (990, [Field field_methods 5 False, Field field_name 1 False, Field field_variables 4 False]),
     (993, [Field field_methods 5 False, Field field_name 1 False]),
     (995, [Field field_directives 2 False, Field field_implements 4 False, Field field_name 1 False, Field field_variables 5 False]),
     (999, [Field field_directives 2 False, Field field_implements 4 False, Field field_methods 5 False, Field field_name 1 False]),
     (1003, [Field field_directives 2 False, Field field_extends 4 False, Field field_name 1 False, Field field_variables 5 False]),
     (1007, [Field field_directives 2 False, Field field_extends 4 False, Field field_methods 5 False, Field field_name 1 False]),
     (1011, [Field field_directives 2 False, Field field_implements 5 False, Field field_name 1 False]),
     (1014, [Field field_directives 2 False, Field field_extends 5 False, Field field_name 1 False]),
     (1017, [Field field_directives 2 False, Field field_methods 5 False, Field field_name 1 False, Field field_variables 4 False]),
     (1021, [Field field_directives 2 False, Field field_name 1 False, Field field_variables 5 False]),
     (1024, [Field field_directives 2 False, Field field_methods 5 False, Field field_name 1 False]),
     (1027, [Field field_extends 3 False, Field field_name 1 False, Field field_prototype 5 False]),
     (1030, [Field field_data_type 3 False, Field field_name 1 False]),
     (1032, [Field field_name 2 False, Field field_variables 3 False]),
     (1034, [Field field_directives 2 False, Field field_extends 4 False, Field field_name 1 False, Field field_prototype 5 False]),
     (1038, [Field field_access 4 False, Field field_name 2 False, Field field_retain 1 False]),
     (1041, [Field field_access 3 False, Field field_configuration_elements 4 False, Field field_name 1 False]),
     (1044, [Field field_name 1 False, Field field_resource_type_name 3 False]),
     (1046, [Field field_body 5 False, Field field_name 2 False, Field field_pragmas 0 False, Field field_return_type 4 False]),
     (1050, [Field field_directives 5 False, Field field_name 2 False, Field field_pragmas 0 False, Field field_return_type 4 False]),
     (1054, [Field field_name 2 False, Field field_pragmas 0 False, Field field_return_type 4 False, Field field_variables 5 False]),
     (1058, [Field field_body 5 False, Field field_directives 3 False, Field field_name 2 False, Field field_pragmas 0 False, Field field_variables 4 False]),
     (1063, [Field field_name 3 False, Field field_pragmas 0 False, Field field_return_type 5 False, Field field_spec 2 False]),
     (1067, [Field field_body 5 False, Field field_directives 4 False, Field field_name 3 False, Field field_pragmas 0 False, Field field_spec 2 False]),
     (1072, [Field field_directives 4 False, Field field_name 3 False, Field field_pragmas 0 False, Field field_spec 2 False, Field field_variables 5 False]),
     (1077, [Field field_body 5 False, Field field_name 3 False, Field field_pragmas 0 False, Field field_spec 2 False, Field field_variables 4 False]),
     (1082, [Field field_implements 5 False, Field field_name 3 False, Field field_pragmas 0 False, Field field_qualifier 2 False]),
     (1086, [Field field_extends 5 False, Field field_name 3 False, Field field_pragmas 0 False, Field field_qualifier 2 False]),
     (1090, [Field field_body 5 False, Field field_name 3 False, Field field_pragmas 0 False, Field field_qualifier 2 False]),
     (1094, [Field field_name 3 False, Field field_pragmas 0 False, Field field_qualifier 2 False, Field field_variables 5 False]),
     (1098, [Field field_directives 5 False, Field field_name 3 False, Field field_pragmas 0 False, Field field_qualifier 2 False])]"

text \<open>Lines 8834 to 8979.\<close>

definition ts_field_map_entries_11 :: "(nat \<times> TSFieldMapEntry list) list" where
  "ts_field_map_entries_11 =
    [(1102, [Field field_method 5 False, Field field_name 3 False, Field field_pragmas 0 False, Field field_qualifier 2 False]),
     (1106, [Field field_body 5 False, Field field_name 3 False, Field field_pragmas 0 False, Field field_qualifier 2 False, Field field_variables 4 False]),
     (1111, [Field field_method 5 False, Field field_name 3 False, Field field_pragmas 0 False, Field field_qualifier 2 False, Field field_variables 4 False]),
     (1116, [Field field_body 5 False, Field field_directives 4 False, Field field_name 3 False, Field field_pragmas 0 False, Field field_qualifier 2 False]),
     (1121, [Field field_directives 4 False, Field field_name 3 False, Field field_pragmas 0 False, Field field_qualifier 2 False, Field field_variables 5 False]),
     (1126, [Field field_directives 4 False, Field field_method 5 False, Field field_name 3 False, Field field_pragmas 0 False, Field field_qualifier 2 False]),
     (1131, [Field field_body 5 False, Field field_method 4 False, Field field_name 3 False, Field field_pragmas 0 False, Field field_qualifier 2 False]),
     (1136, [Field field_body 5 False, Field field_implements 4 False, Field field_name 2 False, Field field_pragmas 0 False]),
     (1140, [Field field_implements 4 False, Field field_name 2 False, Field field_pragmas 0 False, Field field_variables 5 False]),
     (1144, [Field field_directives 5 False, Field field_implements 4 False, Field field_name 2 False, Field field_pragmas 0 False]),
     (1148, [Field field_implements 4 False, Field field_method 5 False, Field field_name 2 False, Field field_pragmas 0 False]),
     (1152, [Field field_body 5 False, Field field_extends 4 False, Field field_name 2 False, Field field_pragmas 0 False]),
     (1156, [Field field_extends 4 False, Field field_name 2 False, Field field_pragmas 0 False, Field field_variables 5 False]),
     (1160, [Field field_directives 5 False, Field field_extends 4 False, Field field_name 2 False, Field field_pragmas 0 False]),
     (1164, [Field field_extends 4 False, Field field_method 5 False, Field field_name 2 False, Field field_pragmas 0 False]),
     (1168, [Field field_implements 5 False, Field field_name 2 False, Field field_pragmas 0 False]),
     (1171, [Field field_extends 5 False, Field field_name 2 False, Field field_pragmas 0 False]),
     (1174, [Field field_body 5 False, Field field_name 2 False, Field field_pragmas 0 False]),
     (1177, [Field field_body 5 False, Field field_name 2 False, Field field_pragmas 0 False, Field field_variables 4 False]),
     (1181, [Field field_method 5 False, Field field_name 2 False, Field field_pragmas 0 False, Field field_variables 4 False]),
     (1185, [Field field_body 5 False, Field field_directives 4 False, Field field_name 2 False, Field field_pragmas 0 False]),
     (1189, [Field field_directives 4 False, Field field_name 2 False, Field field_pragmas 0 False, Field field_variables 5 False]),
     (1193, [Field field_directives 4 False, Field field_method 5 False, Field field_name 2 False, Field field_pragmas 0 False]),
     (1197, [Field field_name 2 False, Field field_pragmas 0 False, Field field_variables 5 False]),
     (1200, [Field field_directives 5 False, Field field_name 2 False, Field field_pragmas 0 False]),
     (1203, [Field field_method 5 False, Field field_name 2 False, Field field_pragmas 0 False]),
     (1206, [Field field_body 5 False, Field field_method 4 False, Field field_name 2 False, Field field_pragmas 0 False]),
     (1210, [Field field_body 5 False, Field field_name 2 False, Field field_pragmas 0 False, Field field_variables 3 False]),
     (1214, [Field field_body 5 False, Field field_method 4 False, Field field_name 2 False, Field field_pragmas 0 False, Field field_variables 3 False])]"

text \<open>Lines 8980 to 9126.\<close>

definition ts_field_map_entries_12 :: "(nat \<times> TSFieldMapEntry list) list" where
  "ts_field_map_entries_12 =
    [(1219, [Field field_body 5 False, Field field_directives 3 False, Field field_name 2 False, Field field_pragmas 0 False]),
     (1223, [Field field_directives 3 False, Field field_method 5 False, Field field_name 2 False, Field field_pragmas 0 False, Field field_variables 4 False]),
     (1228, [Field field_body 5 False, Field field_directives 3 False, Field field_method 4 False, Field field_name 2 False, Field field_pragmas 0 False]),
     (1233, [Field field_body 5 False, Field field_method 3 False, Field field_name 2 False, Field field_pragmas 0 False]),
     (1237, [Field field_lower 0 False, Field field_upper 2 False]),
     (1239, [Field field_name 1 False, Field field_retain 0 False, Field field_spec 3 False]),
     (1242, [Field field_attributes 1 False, Field field_name 0 False, Field field_spec 3 False]),
     (1245, [Field field_body 6 False, Field field_directives 4 False, Field field_name 1 False, Field field_return_type 3 False, Field field_variables 5 False]),
     (1250, [Field field_var 0 False]),
     (1251, [Field field_instruction 2 False, Field field_params 3 False, Field field_result 4 False]),
     (1254, [Field field_instruction 3 False, Field field_params 4 False, Field field_type_ref 2 False]),
     (1257, [Field field_instruction 3 False, Field field_result 4 False, Field field_type_ref 2 False]),
     (1260, [Field field__override 2 False, Field field_body 4 False, Field field_modifier 1 False, Field field_name 3 False]),
     (1264, [Field field__override 2 False, Field field_modifier 1 False, Field field_name 3 False, Field field_variables 4 False]),
     (1268, [Field field_modifier 1 False, Field field_name 2 False, Field field_return_type 4 False]),
     (1271, [Field field_body 4 False, Field field_modifier 1 False, Field field_name 2 False, Field field_variables 3 False]),
     (1275, [Field field__override 1 False, Field field_name 2 False, Field field_return_type 4 False]),
     (1278, [Field field__override 1 False, Field field_body 4 False, Field field_name 2 False, Field field_variables 3 False]),
     (1282, [Field field__override 3 False, Field field_access 1 False, Field field_modifier 2 False, Field field_name 4 False]),
     (1286, [Field field_access 1 False, Field field_body 4 False, Field field_modifier 2 False, Field field_name 3 False]),
     (1290, [Field field_access 1 False, Field field_modifier 2 False, Field field_name 3 False, Field field_variables 4 False]),
     (1294, [Field field__override 2 False, Field field_access 1 False, Field field_body 4 False, Field field_name 3 False]),
     (1298, [Field field__override 2 False, Field field_access 1 False, Field field_name 3 False, Field field_variables 4 False]),
     (1302, [Field field_access 1 False, Field field_name 2 False, Field field_return_type 4 False]),
     (1305, [Field field_access 1 False, Field field_body 4 False, Field field_name 2 False, Field field_variables 3 False]),
     (1309, [Field field_access 4 False, Field field_name 0 False, Field field_variable 2 False]),
     (1312, [Field field_index 3 False, Field field_param 1 False]),
     (1314, [Field field_else_body 4 False, Field field_if_cond 1 False]),
     (1316, [Field field_else_if_cond 1 False]),
     (1317, [Field field_else_if 4 False, Field field_if_body 3 False, Field field_if_cond 1 False]),
     (1320, [Field field_case_cond 1 False, Field field_default 4 False]),
     (1322, [Field field_case_do 2 False, Field field_case_of 0 False]),
     (1324, [Field field_end_value 3 False, Field field_initial_value 1 False]),
     (1326, [Field field_body 4 False, Field field_control_list 2 False, Field field_control_variable 1 False]),
     (1329, [Field field_body 4 False, Field field_variable 2 False])]"

text \<open>Lines 9127 to 9271.\<close>

definition ts_field_map_entries_13 :: "(nat \<times> TSFieldMapEntry list) list" where
  "ts_field_map_entries_13 =
    [(1331, [Field field_not 0 False, Field field_param 1 False, Field field_value 3 False]),
     (1334, [Field field__override 3 False, Field field_modifier 2 False, Field field_name 4 False, Field field_pragmas 0 False]),
     (1338, [Field field_body 4 False, Field field_modifier 2 False, Field field_name 3 False, Field field_pragmas 0 False]),
     (1342, [Field field_modifier 2 False, Field field_name 3 False, Field field_pragmas 0 False, Field field_variables 4 False]),
     (1346, [Field field__override 2 False, Field field_body 4 False, Field field_name 3 False, Field field_pragmas 0 False]),
     (1350, [Field field__override 2 False, Field field_name 3 False, Field field_pragmas 0 False, Field field_variables 4 False]),
     (1354, [Field field_access 2 False, Field field_modifier 3 False, Field field_name 4 False, Field field_pragmas 0 False]),
     (1358, [Field field__override 3 False, Field field_access 2 False, Field field_name 4 False, Field field_pragmas 0 False]),
     (1362, [Field field_access 2 False, Field field_body 4 False, Field field_name 3 False, Field field_pragmas 0 False]),
     (1366, [Field field_access 2 False, Field field_name 3 False, Field field_pragmas 0 False, Field field_variables 4 False]),
     (1370, [Field field_body 6 False, Field field_directives 5 False, Field field_name 2 False, Field field_return_type 4 False, Field field_spec 1 False]),
     (1375, [Field field_directives 5 False, Field field_name 2 False, Field field_return_type 4 False, Field field_spec 1 False, Field field_variables 6 False]),
     (1380, [Field field_body 6 False, Field field_name 2 False, Field field_return_type 4 False, Field field_spec 1 False, Field field_variables 5 False]),
     (1385, [Field field_body 6 False, Field field_implements 4 False, Field field_name 2 False, Field field_qualifier 1 False]),
     (1389, [Field field_body 6 False, Field field_implements 4 False, Field field_name 2 False, Field field_qualifier 1 False, Field field_variables 5 False]),
     (1394, [Field field_implements 4 False, Field field_method 6 False, Field field_name 2 False, Field field_qualifier 1 False, Field field_variables 5 False]),
     (1399, [Field field_body 6 False, Field field_directives 5 False, Field field_implements 4 False, Field field_name 2 False, Field field_qualifier 1 False]),
     (1404, [Field field_directives 5 False, Field field_implements 4 False, Field field_name 2 False, Field field_qualifier 1 False, Field field_variables 6 False]),
     (1409, [Field field_directives 5 False, Field field_implements 4 False, Field field_method 6 False, Field field_name 2 False, Field field_qualifier 1 False]),
     (1414, [Field field_implements 4 False, Field field_name 2 False, Field field_qualifier 1 False, Field field_variables 6 False]),
     (1418, [Field field_directives 6 False, Field field_implements 4 False, Field field_name 2 False, Field field_qualifier 1 False]),
     (1422, [Field field_implements 4 False, Field field_method 6 False, Field field_name 2 False, Field field_qualifier 1 False]),
     (1426, [Field field_body 6 False, Field field_implements 4 False, Field field_method 5 False, Field field_name 2 False, Field field_qualifier 1 False]),
     (1431, [Field field_extends 4 False, Field field_implements 6 False, Field field_name 2 False, Field field_qualifier 1 False]),
     (1435, [Field field_body 6 False, Field field_extends 4 False, Field field_name 2 False, Field field_qualifier 1 False]),
     (1439, [Field field_body 6 False, Field field_extends 4 False, Field field_name 2 False, Field field_qualifier 1 False, Field field_variables 5 False]),
     (1444, [Field field_extends 4 False, Field field_method 6 False, Field field_name 2 False, Field field_qualifier 1 False, Field field_variables 5 False])]"

text \<open>Lines 9272 to 9421.\<close>

definition ts_field_map_entries_14 :: "(nat \<times> TSFieldMapEntry list) list" where
  "ts_field_map_entries_14 =
    [(1449, [Field field_body 6 False, Field field_directives 5 False, Field field_extends 4 False, Field field_name 2 False, Field field_qualifier 1 False]),
     (1454, [Field field_directives 5 False, Field field_extends 4 False, Field field_name 2 False, Field field_qualifier 1 False, Field field_variables 6 False]),
     (1459, [Field field_directives 5 False, Field field_extends 4 False, Field field_method 6 False, Field field_name 2 False, Field field_qualifier 1 False]),
     (1464, [Field field_extends 4 False, Field field_name 2 False, Field field_qualifier 1 False, Field field_variables 6 False]),
     (1468, [Field field_directives 6 False, Field field_extends 4 False, Field field_name 2 False, Field field_qualifier 1 False]),
     (1472, [Field field_extends 4 False, Field field_method 6 False, Field field_name 2 False, Field field_qualifier 1 False]),
     (1476, [Field field_body 6 False, Field field_extends 4 False, Field field_method 5 False, Field field_name 2 False, Field field_qualifier 1 False]),
     (1481, [Field field_body 6 False, Field field_implements 5 False, Field field_name 2 False, Field field_qualifier 1 False]),
     (1485, [Field field_implements 5 False, Field field_name 2 False, Field field_qualifier 1 False, Field field_variables 6 False]),
     (1489, [Field field_directives 6 False, Field field_implements 5 False, Field field_name 2 False, Field field_qualifier 1 False]),
     (1493, [Field field_implements 5 False, Field field_method 6 False, Field field_name 2 False, Field field_qualifier 1 False]),
     (1497, [Field field_body 6 False, Field field_extends 5 False, Field field_name 2 False, Field field_qualifier 1 False]),
     (1501, [Field field_extends 5 False, Field field_name 2 False, Field field_qualifier 1 False, Field field_variables 6 False]),
     (1505, [Field field_directives 6 False, Field field_extends 5 False, Field field_name 2 False, Field field_qualifier 1 False]),
     (1509, [Field field_extends 5 False, Field field_method 6 False, Field field_name 2 False, Field field_qualifier 1 False]),
     (1513, [Field field_body 6 False, Field field_name 2 False, Field field_qualifier 1 False, Field field_variables 4 False]),
     (1517, [Field field_body 6 False, Field field_method 5 False, Field field_name 2 False, Field field_qualifier 1 False, Field field_variables 4 False]),
     (1522, [Field field_body 6 False, Field field_directives 4 False, Field field_name 2 False, Field field_qualifier 1 False]),
     (1526, [Field field_body 6 False, Field field_directives 4 False, Field field_name 2 False, Field field_qualifier 1 False, Field field_variables 5 False]),
     (1531, [Field field_directives 4 False, Field field_method 6 False, Field field_name 2 False, Field field_qualifier 1 False, Field field_variables 5 False]),
     (1536, [Field field_body 6 False, Field field_directives 4 False, Field field_method 5 False, Field field_name 2 False, Field field_qualifier 1 False]),
     (1541, [Field field_implements 6 False, Field field_name 2 False, Field field_qualifier 1 False]),
     (1544, [Field field_body 6 False, Field field_name 2 False, Field field_qualifier 1 False]),
     (1547, [Field field_body 6 False, Field field_name 2 False, Field field_qualifier 1 False, Field field_variables 5 False]),
     (1551, [Field field_method 6 False, Field field_name 2 False, Field field_qualifier 1 False, Field field_variables 5 False]),
     (1555, [Field field_body 6 False, Field field_directives 5 False, Field field_name 2 False, Field field_qualifier 1 False]),
     (1559, [Field field_directives 5 False, Field field_name 2 False, Field field_qualifier 1 False, Field field_variables 6 False]),
     (1563, [Field field_directives 5 False, Field field_method 6 False, Field field_name 2 False, Field field_qualifier 1 False]),
     (1567, [Field field_name 2 False, Field field_qualifier 1 False, Field field_variables 6 False])]"

text \<open>Lines 9422 to 9568.\<close>

definition ts_field_map_entries_15 :: "(nat \<times> TSFieldMapEntry list) list" where
  "ts_field_map_entries_15 =
    [(1570, [Field field_directives 6 False, Field field_name 2 False, Field field_qualifier 1 False]),
     (1573, [Field field_method 6 False, Field field_name 2 False, Field field_qualifier 1 False]),
     (1576, [Field field_body 6 False, Field field_method 5 False, Field field_name 2 False, Field field_qualifier 1 False]),
     (1580, [Field field_body 6 False, Field field_method 4 False, Field field_name 2 False, Field field_qualifier 1 False]),
     (1584, [Field field_body 6 False, Field field_method 4 False, Field field_name 2 False, Field field_qualifier 1 False, Field field_variables 3 False]),
     (1589, [Field field_body 6 False, Field field_directives 3 False, Field field_name 2 False, Field field_qualifier 1 False, Field field_variables 4 False]),
     (1594, [Field field_body 6 False, Field field_directives 3 False, Field field_method 5 False, Field field_name 2 False, Field field_qualifier 1 False, Field field_variables 4 False]),
     (1600, [Field field_body 6 False, Field field_directives 3 False, Field field_method 4 False, Field field_name 2 False, Field field_qualifier 1 False]),
     (1605, [Field field_body 6 False, Field field_implements 3 False, Field field_name 1 False, Field field_variables 4 False]),
     (1609, [Field field_body 6 False, Field field_implements 3 False, Field field_method 5 False, Field field_name 1 False, Field field_variables 4 False]),
     (1614, [Field field_body 6 False, Field field_directives 4 False, Field field_implements 3 False, Field field_name 1 False]),
     (1618, [Field field_body 6 False, Field field_directives 4 False, Field field_implements 3 False, Field field_name 1 False, Field field_variables 5 False]),
     (1623, [Field field_directives 4 False, Field field_implements 3 False, Field field_method 6 False, Field field_name 1 False, Field field_variables 5 False]),
     (1628, [Field field_body 6 False, Field field_directives 4 False, Field field_implements 3 False, Field field_method 5 False, Field field_name 1 False]),
     (1633, [Field field_body 6 False, Field field_implements 3 False, Field field_name 1 False]),
     (1636, [Field field_body 6 False, Field field_implements 3 False, Field field_name 1 False, Field field_variables 5 False]),
     (1640, [Field field_implements 3 False, Field field_method 6 False, Field field_name 1 False, Field field_variables 5 False]),
     (1644, [Field field_body 6 False, Field field_directives 5 False, Field field_implements 3 False, Field field_name 1 False]),
     (1648, [Field field_directives 5 False, Field field_implements 3 False, Field field_name 1 False, Field field_variables 6 False]),
     (1652, [Field field_directives 5 False, Field field_implements 3 False, Field field_method 6 False, Field field_name 1 False]),
     (1656, [Field field_body 6 False, Field field_implements 3 False, Field field_method 5 False, Field field_name 1 False]),
     (1660, [Field field_body 6 False, Field field_implements 3 False, Field field_method 4 False, Field field_name 1 False]),
     (1664, [Field field_body 6 False, Field field_extends 3 False, Field field_implements 5 False, Field field_name 1 False]),
     (1668, [Field field_extends 3 False, Field field_implements 5 False, Field field_name 1 False, Field field_variables 6 False]),
     (1672, [Field field_directives 6 False, Field field_extends 3 False, Field field_implements 5 False, Field field_name 1 False]),
     (1676, [Field field_extends 3 False, Field field_implements 5 False, Field field_method 6 False, Field field_name 1 False]),
     (1680, [Field field_body 6 False, Field field_extends 3 False, Field field_name 1 False, Field field_variables 4 False]),
     (1684, [Field field_body 6 False, Field field_extends 3 False, Field field_method 5 False, Field field_name 1 False, Field field_variables 4 False])]"

text \<open>Lines 9569 to 9717.\<close>

definition ts_field_map_entries_16 :: "(nat \<times> TSFieldMapEntry list) list" where
  "ts_field_map_entries_16 =
    [(1689, [Field field_body 6 False, Field field_directives 4 False, Field field_extends 3 False, Field field_name 1 False]),
     (1693, [Field field_body 6 False, Field field_directives 4 False, Field field_extends 3 False, Field field_name 1 False, Field field_variables 5 False]),
     (1698, [Field field_directives 4 False, Field field_extends 3 False, Field field_method 6 False, Field field_name 1 False, Field field_variables 5 False]),
     (1703, [Field field_body 6 False, Field field_directives 4 False, Field field_extends 3 False, Field field_method 5 False, Field field_name 1 False]),
     (1708, [Field field_extends 3 False, Field field_implements 6 False, Field field_name 1 False]),
     (1711, [Field field_body 6 False, Field field_extends 3 False, Field field_name 1 False]),
     (1714, [Field field_body 6 False, Field field_extends 3 False, Field field_name 1 False, Field field_variables 5 False]),
     (1718, [Field field_extends 3 False, Field field_method 6 False, Field field_name 1 False, Field field_variables 5 False]),
     (1722, [Field field_body 6 False, Field field_directives 5 False, Field field_extends 3 False, Field field_name 1 False]),
     (1726, [Field field_directives 5 False, Field field_extends 3 False, Field field_name 1 False, Field field_variables 6 False]),
     (1730, [Field field_directives 5 False, Field field_extends 3 False, Field field_method 6 False, Field field_name 1 False]),
     (1734, [Field field_extends 3 False, Field field_name 1 False, Field field_variables 6 False]),
     (1737, [Field field_directives 6 False, Field field_extends 3 False, Field field_name 1 False]),
     (1740, [Field field_extends 3 False, Field field_method 6 False, Field field_name 1 False]),
     (1743, [Field field_body 6 False, Field field_extends 3 False, Field field_method 5 False, Field field_name 1 False]),
     (1747, [Field field_body 6 False, Field field_extends 3 False, Field field_method 4 False, Field field_name 1 False]),
     (1751, [Field field_variable_name 0 False]),
     (1752, [Field field_body 6 False, Field field_implements 4 False, Field field_name 1 False]),
     (1755, [Field field_body 6 False, Field field_implements 4 False, Field field_name 1 False, Field field_variables 5 False]),
     (1759, [Field field_implements 4 False, Field field_method 6 False, Field field_name 1 False, Field field_variables 5 False]),
     (1763, [Field field_body 6 False, Field field_directives 5 False, Field field_implements 4 False, Field field_name 1 False]),
     (1767, [Field field_directives 5 False, Field field_implements 4 False, Field field_name 1 False, Field field_variables 6 False]),
     (1771, [Field field_directives 5 False, Field field_implements 4 False, Field field_method 6 False, Field field_name 1 False]),
     (1775, [Field field_implements 4 False, Field field_name 1 False, Field field_variables 6 False]),
     (1778, [Field field_directives 6 False, Field field_implements 4 False, Field field_name 1 False]),
     (1781, [Field field_implements 4 False, Field field_method 6 False, Field field_name 1 False]),
     (1784, [Field field_body 6 False, Field field_implements 4 False, Field field_method 5 False, Field field_name 1 False]),
     (1788, [Field field_extends 4 False, Field field_implements 6 False, Field field_name 1 False]),
     (1791, [Field field_body 6 False, Field field_extends 4 False, Field field_name 1 False]),
     (1794, [Field field_body 6 False, Field field_extends 4 False, Field field_name 1 False, Field field_variables 5 False]),
     (1798, [Field field_extends 4 False, Field field_method 6 False, Field field_name 1 False, Field field_variables 5 False]),
     (1802, [Field field_body 6 False, Field field_directives 5 False, Field field_extends 4 False, Field field_name 1 False])]"

text \<open>Lines 9718 to 9867.\<close>

definition ts_field_map_entries_17 :: "(nat \<times> TSFieldMapEntry list) list" where
  "ts_field_map_entries_17 =
    [(1806, [Field field_directives 5 False, Field field_extends 4 False, Field field_name 1 False, Field field_variables 6 False]),
     (1810, [Field field_directives 5 False, Field field_extends 4 False, Field field_method 6 False, Field field_name 1 False]),
     (1814, [Field field_extends 4 False, Field field_name 1 False, Field field_variables 6 False]),
     (1817, [Field field_directives 6 False, Field field_extends 4 False, Field field_name 1 False]),
     (1820, [Field field_extends 4 False, Field field_method 6 False, Field field_name 1 False]),
     (1823, [Field field_body 6 False, Field field_extends 4 False, Field field_method 5 False, Field field_name 1 False]),
     (1827, [Field field_body 6 False, Field field_method 4 False, Field field_name 1 False, Field field_variables 3 False]),
     (1831, [Field field_body 6 False, Field field_directives 3 False, Field field_name 1 False, Field field_variables 4 False]),
     (1835, [Field field_body 6 False, Field field_directives 3 False, Field field_method 5 False, Field field_name 1 False, Field field_variables 4 False]),
     (1840, [Field field_body 6 False, Field field_directives 3 False, Field field_method 4 False, Field field_name 1 False]),
     (1844, [Field field_body 6 False, Field field_implements 5 False, Field field_name 1 False]),
     (1847, [Field field_implements 5 False, Field field_name 1 False, Field field_variables 6 False]),
     (1850, [Field field_directives 6 False, Field field_implements 5 False, Field field_name 1 False]),
     (1853, [Field field_implements 5 False, Field field_method 6 False, Field field_name 1 False]),
     (1856, [Field field_body 6 False, Field field_name 1 False, Field field_variables 4 False]),
     (1859, [Field field_body 6 False, Field field_method 5 False, Field field_name 1 False, Field field_variables 4 False]),
     (1863, [Field field_body 6 False, Field field_directives 4 False, Field field_name 1 False]),
     (1866, [Field field_body 6 False, Field field_directives 4 False, Field field_name 1 False, Field field_variables 5 False]),
     (1870, [Field field_directives 4 False, Field field_method 6 False, Field field_name 1 False, Field field_variables 5 False]),
     (1874, [Field field_body 6 False, Field field_directives 4 False, Field field_method 5 False, Field field_name 1 False]),
     (1878, [Field field_body 6 False, Field field_name 1 False]),
     (1880, [Field field_body 6 False, Field field_name 1 False, Field field_variables 5 False]),
     (1883, [Field field_method 6 False, Field field_name 1 False, Field field_variables 5 False]),
     (1886, [Field field_body 6 False, Field field_directives 5 False, Field field_name 1 False]),
     (1889, [Field field_directives 5 False, Field field_name 1 False, Field field_variables 6 False]),
     (1892, [Field field_directives 5 False, Field field_method 6 False, Field field_name 1 False]),
     (1895, [Field field_body 6 False, Field field_method 5 False, Field field_name 1 False]),
     (1898, [Field field_body 6 False, Field field_method 4 False, Field field_name 1 False]),
     (1901, [Field field_body 6 False, Field field_directives 2 False, Field field_method 4 False, Field field_name 1 False, Field field_variables 3 False]),
     (1906, [Field field_implements 4 False, Field field_methods 6 False, Field field_modifier 1 False, Field field_name 2 False, Field field_variables 5 False]),
     (1911, [Field field_implements 4 False, Field field_modifier 1 False, Field field_name 2 False, Field field_variables 6 False]),
     (1915, [Field field_implements 4 False, Field field_methods 6 False, Field field_modifier 1 False, Field field_name 2 False]),
     (1919, [Field field_extends 4 False, Field field_implements 6 False, Field field_modifier 1 False, Field field_name 2 False])]"

text \<open>Lines 9868 to 10015.\<close>

definition ts_field_map_entries_18 :: "(nat \<times> TSFieldMapEntry list) list" where
  "ts_field_map_entries_18 =
    [(1923, [Field field_extends 4 False, Field field_methods 6 False, Field field_modifier 1 False, Field field_name 2 False, Field field_variables 5 False]),
     (1928, [Field field_extends 4 False, Field field_modifier 1 False, Field field_name 2 False, Field field_variables 6 False]),
     (1932, [Field field_extends 4 False, Field field_methods 6 False, Field field_modifier 1 False, Field field_name 2 False]),
     (1936, [Field field_implements 5 False, Field field_modifier 1 False, Field field_name 2 False, Field field_variables 6 False]),
     (1940, [Field field_implements 5 False, Field field_methods 6 False, Field field_modifier 1 False, Field field_name 2 False]),
     (1944, [Field field_extends 5 False, Field field_modifier 1 False, Field field_name 2 False, Field field_variables 6 False]),
     (1948, [Field field_extends 5 False, Field field_methods 6 False, Field field_modifier 1 False, Field field_name 2 False]),
     (1952, [Field field_implements 6 False, Field field_modifier 1 False, Field field_name 2 False]),
     (1955, [Field field_methods 6 False, Field field_modifier 1 False, Field field_name 2 False, Field field_variables 5 False]),
     (1959, [Field field_modifier 1 False, Field field_name 2 False, Field field_variables 6 False]),
     (1962, [Field field_methods 6 False, Field field_modifier 1 False, Field field_name 2 False]),
     (1965, [Field field_directives 3 False, Field field_implements 5 False, Field field_modifier 1 False, Field field_name 2 False, Field field_variables 6 False]),
     (1970, [Field field_directives 3 False, Field field_implements 5 False, Field field_methods 6 False, Field field_modifier 1 False, Field field_name 2 False]),
     (1975, [Field field_directives 3 False, Field field_extends 5 False, Field field_modifier 1 False, Field field_name 2 False, Field field_variables 6 False]),
     (1980, [Field field_directives 3 False, Field field_extends 5 False, Field field_methods 6 False, Field field_modifier 1 False, Field field_name 2 False]),
     (1985, [Field field_directives 3 False, Field field_implements 6 False, Field field_modifier 1 False, Field field_name 2 False]),
     (1989, [Field field_directives 3 False, Field field_extends 6 False, Field field_modifier 1 False, Field field_name 2 False]),
     (1993, [Field field_directives 3 False, Field field_methods 6 False, Field field_modifier 1 False, Field field_name 2 False, Field field_variables 5 False]),
     (1998, [Field field_directives 3 False, Field field_modifier 1 False, Field field_name 2 False, Field field_variables 6 False]),
     (2002, [Field field_directives 3 False, Field field_methods 6 False, Field field_modifier 1 False, Field field_name 2 False]),
     (2006, [Field field_implements 3 False, Field field_methods 6 False, Field field_name 1 False, Field field_variables 5 False]),
     (2010, [Field field_extends 3 False, Field field_implements 5 False, Field field_methods 6 False, Field field_name 1 False]),
     (2014, [Field field_extends 3 False, Field field_methods 6 False, Field field_name 1 False, Field field_variables 5 False]),
     (2018, [Field field_extends 3 False, Field field_methods 6 False, Field field_name 1 False]),
     (2021, [Field field_implements 4 False, Field field_methods 6 False, Field field_name 1 False, Field field_variables 5 False]),
     (2025, [Field field_implements 4 False, Field field_methods 6 False, Field field_name 1 False]),
     (2028, [Field field_extends 4 False, Field field_methods 6 False, Field field_name 1 False, Field field_variables 5 False]),
     (2032, [Field field_extends 4 False, Field field_methods 6 False, Field field_name 1 False]),
     (2035, [Field field_implements 5 False, Field field_methods 6 False, Field field_name 1 False]),
     (2038, [Field field_methods 6 False, Field field_name 1 False, Field field_variables 5 False])]"

text \<open>Lines 10016 to 10162.\<close>

definition ts_field_map_entries_19 :: "(nat \<times> TSFieldMapEntry list) list" where
  "ts_field_map_entries_19 =
    [(2041, [Field field_directives 2 False, Field field_implements 4 False, Field field_methods 6 False, Field field_name 1 False, Field field_variables 5 False]),
     (2046, [Field field_directives 2 False, Field field_implements 4 False, Field field_name 1 False, Field field_variables 6 False]),
     (2050, [Field field_directives 2 False, Field field_implements 4 False, Field field_methods 6 False, Field field_name 1 False]),
     (2054, [Field field_directives 2 False, Field field_extends 4 False, Field field_implements 6 False, Field field_name 1 False]),
     (2058, [Field field_directives 2 False, Field field_extends 4 False, Field field_methods 6 False, Field field_name 1 False, Field field_variables 5 False]),
     (2063, [Field field_directives 2 False, Field field_extends 4 False, Field field_name 1 False, Field field_variables 6 False]),
     (2067, [Field field_directives 2 False, Field field_extends 4 False, Field field_methods 6 False, Field field_name 1 False]),
     (2071, [Field field_directives 2 False, Field field_implements 5 False, Field field_name 1 False, Field field_variables 6 False]),
     (2075, [Field field_directives 2 False, Field field_implements 5 False, Field field_methods 6 False, Field field_name 1 False]),
     (2079, [Field field_directives 2 False, Field field_extends 5 False, Field field_name 1 False, Field field_variables 6 False]),
     (2083, [Field field_directives 2 False, Field field_extends 5 False, Field field_methods 6 False, Field field_name 1 False]),
     (2087, [Field field_directives 2 False, Field field_implements 6 False, Field field_name 1 False]),
     (2090, [Field field_directives 2 False, Field field_methods 6 False, Field field_name 1 False, Field field_variables 5 False]),
     (2094, [Field field_directives 2 False, Field field_name 1 False, Field field_variables 6 False]),
     (2097, [Field field_directives 2 False, Field field_methods 6 False, Field field_name 1 False]),
     (2100, [Field field_data_type 3 False, Field field_name 1 False, Field field_variables 4 False]),
     (2103, [Field field_data_type 4 False, Field field_name 2 False]),
     (2105, [Field field_directives 2 False, Field field_extends 4 False, Field field_name 1 False, Field field_prototype 6 False]),
     (2109, [Field field_access 4 False, Field field_configuration_elements 5 False, Field field_name 2 False, Field field_retain 1 False]),
     (2113, [Field field_access 5 False, Field field_name 1 False, Field field_task 2 False, Field field_task 3 False]),
     (2117, [Field field_access 4 False, Field field_name 0 False, Field field_path 2 False]),
     (2120, [Field field_direct 2 False, Field field_path 0 False]),
     (2122, [Field field_global_variables 4 False, Field field_name 1 False, Field field_resource_type_name 3 False]),
     (2125, [Field field_name 1 False, Field field_resource 4 False, Field field_resource_type_name 3 False]),
     (2128, [Field field_body 6 False, Field field_directives 5 False, Field field_name 2 False, Field field_pragmas 0 False, Field field_return_type 4 False]),
     (2133, [Field field_directives 5 False, Field field_name 2 False, Field field_pragmas 0 False, Field field_return_type 4 False, Field field_variables 6 False]),
     (2138, [Field field_body 6 False, Field field_name 2 False, Field field_pragmas 0 False, Field field_return_type 4 False, Field field_variables 5 False]),
     (2143, [Field field_body 6 False, Field field_name 3 False, Field field_pragmas 0 False, Field field_return_type 5 False, Field field_spec 2 False]),
     (2148, [Field field_directives 6 False, Field field_name 3 False, Field field_pragmas 0 False, Field field_return_type 5 False, Field field_spec 2 False]),
     (2153, [Field field_name 3 False, Field field_pragmas 0 False, Field field_return_type 5 False, Field field_spec 2 False, Field field_variables 6 False])]"

text \<open>Lines 10163 to 10309.\<close>

definition ts_field_map_entries_20 :: "(nat \<times> TSFieldMapEntry list) list" where
  "ts_field_map_entries_20 =
    [(2158, [Field field_body 6 False, Field field_directives 4 False, Field field_name 3 False, Field field_pragmas 0 False, Field field_spec 2 False, Field field_variables 5 False]),
     (2164, [Field field_body 6 False, Field field_implements 5 False, Field field_name 3 False, Field field_pragmas 0 False, Field field_qualifier 2 False]),
     (2169, [Field field_implements 5 False, Field field_name 3 False, Field field_pragmas 0 False, Field field_qualifier 2 False, Field field_variables 6 False]),
     (2174, [Field field_directives 6 False, Field field_implements 5 False, Field field_name 3 False, Field field_pragmas 0 False, Field field_qualifier 2 False]),
     (2179, [Field field_implements 5 False, Field field_method 6 False, Field field_name 3 False, Field field_pragmas 0 False, Field field_qualifier 2 False]),
     (2184, [Field field_body 6 False, Field field_extends 5 False, Field field_name 3 False, Field field_pragmas 0 False, Field field_qualifier 2 False]),
     (2189, [Field field_extends 5 False, Field field_name 3 False, Field field_pragmas 0 False, Field field_qualifier 2 False, Field field_variables 6 False]),
     (2194, [Field field_directives 6 False, Field field_extends 5 False, Field field_name 3 False, Field field_pragmas 0 False, Field field_qualifier 2 False]),
     (2199, [Field field_extends 5 False, Field field_method 6 False, Field field_name 3 False, Field field_pragmas 0 False, Field field_qualifier 2 False]),
     (2204, [Field field_implements 6 False, Field field_name 3 False, Field field_pragmas 0 False, Field field_qualifier 2 False]),
     (2208, [Field field_extends 6 False, Field field_name 3 False, Field field_pragmas 0 False, Field field_qualifier 2 False]),
     (2212, [Field field_body 6 False, Field field_name 3 False, Field field_pragmas 0 False, Field field_qualifier 2 False]),
     (2216, [Field field_body 6 False, Field field_name 3 False, Field field_pragmas 0 False, Field field_qualifier 2 False, Field field_variables 5 False]),
     (2221, [Field field_method 6 False, Field field_name 3 False, Field field_pragmas 0 False, Field field_qualifier 2 False, Field field_variables 5 False]),
     (2226, [Field field_body 6 False, Field field_directives 5 False, Field field_name 3 False, Field field_pragmas 0 False, Field field_qualifier 2 False]),
     (2231, [Field field_directives 5 False, Field field_name 3 False, Field field_pragmas 0 False, Field field_qualifier 2 False, Field field_variables 6 False]),
     (2236, [Field field_directives 5 False, Field field_method 6 False, Field field_name 3 False, Field field_pragmas 0 False, Field field_qualifier 2 False]),
     (2241, [Field field_name 3 False, Field field_pragmas 0 False, Field field_qualifier 2 False, Field field_variables 6 False]),
     (2245, [Field field_directives 6 False, Field field_name 3 False, Field field_pragmas 0 False, Field field_qualifier 2 False]),
     (2249, [Field field_method 6 False, Field field_name 3 False, Field field_pragmas 0 False, Field field_qualifier 2 False]),
     (2253, [Field field_body 6 False, Field field_method 5 False, Field field_name 3 False, Field field_pragmas 0 False, Field field_qualifier 2 False]),
     (2258, [Field field_body 6 False, Field field_name 3 False, Field field_pragmas 0 False, Field field_qualifier 2 False, Field field_variables 4 False]),
     (2263, [Field field_body 6 False, Field field_method 5 False, Field field_name 3 False, Field field_pragmas 0 False, Field field_qualifier 2 False, Field field_variables 4 False]),
     (2269, [Field field_body 6 False, Field field_directives 4 False, Field field_name 3 False, Field field_pragmas 0 False, Field field_qualifier 2 False]),
     (2274, [Field field_body 6 False, Field field_directives 4 False, Field field_name 3 False, Field field_pragmas 0 False, Field field_qualifier 2 False, Field field_variables 5 False])]"

text \<open>Lines 10310 to 10456.\<close>

definition ts_field_map_entries_21 :: "(nat \<times> TSFieldMapEntry list) list" where
  "ts_field_map_entries_21 =
    [(2280, [Field field_directives 4 False, Field field_method 6 False, Field field_name 3 False, Field field_pragmas 0 False, Field field_qualifier 2 False, Field field_variables 5 False]),
     (2286, [Field field_body 6 False, Field field_directives 4 False, Field field_method 5 False, Field field_name 3 False, Field field_pragmas 0 False, Field field_qualifier 2 False]),
     (2292, [Field field_body 6 False, Field field_method 4 False, Field field_name 3 False, Field field_pragmas 0 False, Field field_qualifier 2 False]),
     (2297, [Field field_body 6 False, Field field_implements 4 False, Field field_name 2 False, Field field_pragmas 0 False]),
     (2301, [Field field_body 6 False, Field field_implements 4 False, Field field_name 2 False, Field field_pragmas 0 False, Field field_variables 5 False]),
     (2306, [Field field_implements 4 False, Field field_method 6 False, Field field_name 2 False, Field field_pragmas 0 False, Field field_variables 5 False]),
     (2311, [Field field_body 6 False, Field field_directives 5 False, Field field_implements 4 False, Field field_name 2 False, Field field_pragmas 0 False]),
     (2316, [Field field_directives 5 False, Field field_implements 4 False, Field field_name 2 False, Field field_pragmas 0 False, Field field_variables 6 False]),
     (2321, [Field field_directives 5 False, Field field_implements 4 False, Field field_method 6 False, Field field_name 2 False, Field field_pragmas 0 False]),
     (2326, [Field field_implements 4 False, Field field_name 2 False, Field field_pragmas 0 False, Field field_variables 6 False]),
     (2330, [Field field_directives 6 False, Field field_implements 4 False, Field field_name 2 False, Field field_pragmas 0 False]),
     (2334, [Field field_implements 4 False, Field field_method 6 False, Field field_name 2 False, Field field_pragmas 0 False]),
     (2338, [Field field_body 6 False, Field field_implements 4 False, Field field_method 5 False, Field field_name 2 False, Field field_pragmas 0 False]),
     (2343, [Field field_extends 4 False, Field field_implements 6 False, Field field_name 2 False, Field field_pragmas 0 False]),
     (2347, [Field field_body 6 False, Field field_extends 4 False, Field field_name 2 False, Field field_pragmas 0 False]),
     (2351, [Field field_body 6 False, Field field_extends 4 False, Field field_name 2 False, Field field_pragmas 0 False, Field field_variables 5 False]),
     (2356, [Field field_extends 4 False, Field field_method 6 False, Field field_name 2 False, Field field_pragmas 0 False, Field field_variables 5 False]),
     (2361, [Field field_body 6 False, Field field_directives 5 False, Field field_extends 4 False, Field field_name 2 False, Field field_pragmas 0 False]),
     (2366, [Field field_directives 5 False, Field field_extends 4 False, Field field_name 2 False, Field field_pragmas 0 False, Field field_variables 6 False]),
     (2371, [Field field_directives 5 False, Field field_extends 4 False, Field field_method 6 False, Field field_name 2 False, Field field_pragmas 0 False]),
     (2376, [Field field_extends 4 False, Field field_name 2 False, Field field_pragmas 0 False, Field field_variables 6 False]),
     (2380, [Field field_directives 6 False, Field field_extends 4 False, Field field_name 2 False, Field field_pragmas 0 False]),
     (2384, [Field field_extends 4 False, Field field_method 6 False, Field field_name 2 False, Field field_pragmas 0 False]),
     (2388, [Field field_body 6 False, Field field_extends 4 False, Field field_method 5 False, Field field_name 2 False, Field field_pragmas 0 False]),
     (2393, [Field field_body 6 False, Field field_implements 5 False, Field field_name 2 False, Field field_pragmas 0 False]),
     (2397, [Field field_implements 5 False, Field field_name 2 False, Field field_pragmas 0 False, Field field_variables 6 False])]"

text \<open>Lines 10457 to 10603.\<close>

definition ts_field_map_entries_22 :: "(nat \<times> TSFieldMapEntry list) list" where
  "ts_field_map_entries_22 =
    [(2401, [Field field_directives 6 False, Field field_implements 5 False, Field field_name 2 False, Field field_pragmas 0 False]),
     (2405, [Field field_implements 5 False, Field field_method 6 False, Field field_name 2 False, Field field_pragmas 0 False]),
     (2409, [Field field_body 6 False, Field field_extends 5 False, Field field_name 2 False, Field field_pragmas 0 False]),
     (2413, [Field field_extends 5 False, Field field_name 2 False, Field field_pragmas 0 False, Field field_variables 6 False]),
     (2417, [Field field_directives 6 False, Field field_extends 5 False, Field field_name 2 False, Field field_pragmas 0 False]),
     (2421, [Field field_extends 5 False, Field field_method 6 False, Field field_name 2 False, Field field_pragmas 0 False]),
     (2425, [Field field_body 6 False, Field field_name 2 False, Field field_pragmas 0 False, Field field_variables 4 False]),
     (2429, [Field field_body 6 False, Field field_method 5 False, Field field_name 2 False, Field field_pragmas 0 False, Field field_variables 4 False]),
     (2434, [Field field_body 6 False, Field field_directives 4 False, Field field_name 2 False, Field field_pragmas 0 False]),
     (2438, [Field field_body 6 False, Field field_directives 4 False, Field field_name 2 False, Field field_pragmas 0 False, Field field_variables 5 False]),
     (2443, [Field field_directives 4 False, Field field_method 6 False, Field field_name 2 False, Field field_pragmas 0 False, Field field_variables 5 False]),
     (2448, [Field field_body 6 False, Field field_directives 4 False, Field field_method 5 False, Field field_name 2 False, Field field_pragmas 0 False]),
     (2453, [Field field_implements 6 False, Field field_name 2 False, Field field_pragmas 0 False]),
     (2456, [Field field_body 6 False, Field field_name 2 False, Field field_pragmas 0 False]),
     (2459, [Field field_body 6 False, Field field_name 2 False, Field field_pragmas 0 False, Field field_variables 5 False]),
     (2463, [Field field_method 6 False, Field field_name 2 False, Field field_pragmas 0 False, Field field_variables 5 False]),
     (2467, [Field field_body 6 False, Field field_directives 5 False, Field field_name 2 False, Field field_pragmas 0 False]),
     (2471, [Field field_directives 5 False, Field field_name 2 False, Field field_pragmas 0 False, Field field_variables 6 False]),
     (2475, [Field field_directives 5 False, Field field_method 6 False, Field field_name 2 False, Field field_pragmas 0 False]),
     (2479, [Field field_name 2 False, Field field_pragmas 0 False, Field field_variables 6 False]),
     (2482, [Field field_directives 6 False, Field field_name 2 False, Field field_pragmas 0 False]),
     (2485, [Field field_method 6 False, Field field_name 2 False, Field field_pragmas 0 False]),
     (2488, [Field field_body 6 False, Field field_method 5 False, Field field_name 2 False, Field field_pragmas 0 False]),
     (2492, [Field field_body 6 False, Field field_method 4 False, Field field_name 2 False, Field field_pragmas 0 False]),
     (2496, [Field field_body 6 False, Field field_method 4 False, Field field_name 2 False, Field field_pragmas 0 False, Field field_variables 3 False]),
     (2501, [Field field_body 6 False, Field field_directives 3 False, Field field_name 2 False, Field field_pragmas 0 False, Field field_variables 4 False]),
     (2506, [Field field_body 6 False, Field field_directives 3 False, Field field_method 5 False, Field field_name 2 False, Field field_pragmas 0 False, Field field_variables 4 False]),
     (2512, [Field field_body 6 False, Field field_directives 3 False, Field field_method 4 False, Field field_name 2 False, Field field_pragmas 0 False]),
     (2517, [Field field_ranges 2 False, Field field_spec 5 False])]"

text \<open>Lines 10604 to 10751.\<close>

definition ts_field_map_entries_23 :: "(nat \<times> TSFieldMapEntry list) list" where
  "ts_field_map_entries_23 =
    [(2519, [Field field_init 4 False, Field field_name 1 False, Field field_retain 0 False, Field field_spec 3 False]),
     (2523, [Field field_attributes 2 False, Field field_name 1 False, Field field_retain 0 False, Field field_spec 4 False]),
     (2527, [Field field_attributes 1 False, Field field_init 4 False, Field field_name 0 False, Field field_spec 3 False]),
     (2531, [Field field_index 0 False]), (2532, [Field field_values 1 False]),
     (2533, [Field field_name 0 False, Field field_value 2 False]),
     (2535, [Field field_var 2 True]), (2536, [Field field_var 0 True, Field field_var 1 True]),
     (2538, [Field field_var 2 False]),
     (2539, [Field field_instruction 3 False, Field field_params 4 False, Field field_result 5 False, Field field_type_ref 2 False]),
     (2543, [Field field_dimensions 3 False]),
     (2544, [Field field__override 2 False, Field field_modifier 1 False, Field field_name 3 False, Field field_return_type 5 False]),
     (2548, [Field field__override 2 False, Field field_body 5 False, Field field_modifier 1 False, Field field_name 3 False, Field field_variables 4 False]),
     (2553, [Field field_body 5 False, Field field_modifier 1 False, Field field_name 2 False, Field field_return_type 4 False]),
     (2557, [Field field_modifier 1 False, Field field_name 2 False, Field field_return_type 4 False, Field field_variables 5 False]),
     (2561, [Field field__override 1 False, Field field_body 5 False, Field field_name 2 False, Field field_return_type 4 False]),
     (2565, [Field field__override 1 False, Field field_name 2 False, Field field_return_type 4 False, Field field_variables 5 False]),
     (2569, [Field field__override 3 False, Field field_access 1 False, Field field_body 5 False, Field field_modifier 2 False, Field field_name 4 False]),
     (2574, [Field field__override 3 False, Field field_access 1 False, Field field_modifier 2 False, Field field_name 4 False, Field field_variables 5 False]),
     (2579, [Field field_access 1 False, Field field_modifier 2 False, Field field_name 3 False, Field field_return_type 5 False]),
     (2583, [Field field_access 1 False, Field field_body 5 False, Field field_modifier 2 False, Field field_name 3 False, Field field_variables 4 False]),
     (2588, [Field field__override 2 False, Field field_access 1 False, Field field_name 3 False, Field field_return_type 5 False]),
     (2592, [Field field__override 2 False, Field field_access 1 False, Field field_body 5 False, Field field_name 3 False, Field field_variables 4 False]),
     (2597, [Field field_access 1 False, Field field_body 5 False, Field field_name 2 False, Field field_return_type 4 False]),
     (2601, [Field field_access 1 False, Field field_name 2 False, Field field_return_type 4 False, Field field_variables 5 False]),
     (2605, [Field field_access 4 False, Field field_direction 5 False, Field field_name 0 False, Field field_variable 2 False]),
     (2609, [Field field_else_if_body 3 False, Field field_else_if_cond 1 False]),
     (2611, [Field field_else_body 5 False, Field field_if_body 3 False, Field field_if_cond 1 False]),
     (2614, [Field field_else_body 5 False, Field field_else_if 3 False, Field field_if_cond 1 False]),
     (2617, [Field field_case_cond 1 False, Field field_case_selection 3 False, Field field_default 5 False]),
     (2620, [Field field__override 3 False, Field field_body 5 False, Field field_modifier 2 False, Field field_name 4 False, Field field_pragmas 0 False]),
     (2625, [Field field__override 3 False, Field field_modifier 2 False, Field field_name 4 False, Field field_pragmas 0 False, Field field_variables 5 False]),
     (2630, [Field field_modifier 2 False, Field field_name 3 False, Field field_pragmas 0 False, Field field_return_type 5 False])]"

text \<open>Lines 10752 to 10897.\<close>

definition ts_field_map_entries_24 :: "(nat \<times> TSFieldMapEntry list) list" where
  "ts_field_map_entries_24 =
    [(2634, [Field field_body 5 False, Field field_modifier 2 False, Field field_name 3 False, Field field_pragmas 0 False, Field field_variables 4 False]),
     (2639, [Field field__override 2 False, Field field_name 3 False, Field field_pragmas 0 False, Field field_return_type 5 False]),
     (2643, [Field field__override 2 False, Field field_body 5 False, Field field_name 3 False, Field field_pragmas 0 False, Field field_variables 4 False]),
     (2648, [Field field__override 4 False, Field field_access 2 False, Field field_modifier 3 False, Field field_name 5 False, Field field_pragmas 0 False]),
     (2653, [Field field_access 2 False, Field field_body 5 False, Field field_modifier 3 False, Field field_name 4 False, Field field_pragmas 0 False]),
     (2658, [Field field_access 2 False, Field field_modifier 3 False, Field field_name 4 False, Field field_pragmas 0 False, Field field_variables 5 False]),
     (2663, [Field field__override 3 False, Field field_access 2 False, Field field_body 5 False, Field field_name 4 False, Field field_pragmas 0 False]),
     (2668, [Field field__override 3 False, Field field_access 2 False, Field field_name 4 False, Field field_pragmas 0 False, Field field_variables 5 False]),
     (2673, [Field field_access 2 False, Field field_name 3 False, Field field_pragmas 0 False, Field field_return_type 5 False]),
     (2677, [Field field_access 2 False, Field field_body 5 False, Field field_name 3 False, Field field_pragmas 0 False, Field field_variables 4 False]),
     (2682, [Field field_body 7 False, Field field_directives 5 False, Field field_name 2 False, Field field_return_type 4 False, Field field_spec 1 False, Field field_variables 6 False]),
     (2688, [Field field_body 7 False, Field field_implements 4 False, Field field_name 2 False, Field field_qualifier 1 False, Field field_variables 5 False]),
     (2693, [Field field_body 7 False, Field field_implements 4 False, Field field_method 6 False, Field field_name 2 False, Field field_qualifier 1 False, Field field_variables 5 False]),
     (2699, [Field field_body 7 False, Field field_directives 5 False, Field field_implements 4 False, Field field_name 2 False, Field field_qualifier 1 False]),
     (2704, [Field field_body 7 False, Field field_directives 5 False, Field field_implements 4 False, Field field_name 2 False, Field field_qualifier 1 False, Field field_variables 6 False]),
     (2710, [Field field_directives 5 False, Field field_implements 4 False, Field field_method 7 False, Field field_name 2 False, Field field_qualifier 1 False, Field field_variables 6 False]),
     (2716, [Field field_body 7 False, Field field_directives 5 False, Field field_implements 4 False, Field field_method 6 False, Field field_name 2 False, Field field_qualifier 1 False]),
     (2722, [Field field_body 7 False, Field field_implements 4 False, Field field_name 2 False, Field field_qualifier 1 False]),
     (2726, [Field field_body 7 False, Field field_implements 4 False, Field field_name 2 False, Field field_qualifier 1 False, Field field_variables 6 False]),
     (2731, [Field field_implements 4 False, Field field_method 7 False, Field field_name 2 False, Field field_qualifier 1 False, Field field_variables 6 False]),
     (2736, [Field field_body 7 False, Field field_directives 6 False, Field field_implements 4 False, Field field_name 2 False, Field field_qualifier 1 False]),
     (2741, [Field field_directives 6 False, Field field_implements 4 False, Field field_name 2 False, Field field_qualifier 1 False, Field field_variables 7 False]),
     (2746, [Field field_directives 6 False, Field field_implements 4 False, Field field_method 7 False, Field field_name 2 False, Field field_qualifier 1 False]),
     (2751, [Field field_body 7 False, Field field_implements 4 False, Field field_method 6 False, Field field_name 2 False, Field field_qualifier 1 False])]"

text \<open>Lines 10898 to 11045.\<close>

definition ts_field_map_entries_25 :: "(nat \<times> TSFieldMapEntry list) list" where
  "ts_field_map_entries_25 =
    [(2756, [Field field_body 7 False, Field field_implements 4 False, Field field_method 5 False, Field field_name 2 False, Field field_qualifier 1 False]),
     (2761, [Field field_body 7 False, Field field_extends 4 False, Field field_implements 6 False, Field field_name 2 False, Field field_qualifier 1 False]),
     (2766, [Field field_extends 4 False, Field field_implements 6 False, Field field_name 2 False, Field field_qualifier 1 False, Field field_variables 7 False]),
     (2771, [Field field_directives 7 False, Field field_extends 4 False, Field field_implements 6 False, Field field_name 2 False, Field field_qualifier 1 False]),
     (2776, [Field field_extends 4 False, Field field_implements 6 False, Field field_method 7 False, Field field_name 2 False, Field field_qualifier 1 False]),
     (2781, [Field field_body 7 False, Field field_extends 4 False, Field field_name 2 False, Field field_qualifier 1 False, Field field_variables 5 False]),
     (2786, [Field field_body 7 False, Field field_extends 4 False, Field field_method 6 False, Field field_name 2 False, Field field_qualifier 1 False, Field field_variables 5 False]),
     (2792, [Field field_body 7 False, Field field_directives 5 False, Field field_extends 4 False, Field field_name 2 False, Field field_qualifier 1 False]),
     (2797, [Field field_body 7 False, Field field_directives 5 False, Field field_extends 4 False, Field field_name 2 False, Field field_qualifier 1 False, Field field_variables 6 False]),
     (2803, [Field field_directives 5 False, Field field_extends 4 False, Field field_method 7 False, Field field_name 2 False, Field field_qualifier 1 False, Field field_variables 6 False]),
     (2809, [Field field_body 7 False, Field field_directives 5 False, Field field_extends 4 False, Field field_method 6 False, Field field_name 2 False, Field field_qualifier 1 False]),
     (2815, [Field field_extends 4 False, Field field_implements 7 False, Field field_name 2 False, Field field_qualifier 1 False]),
     (2819, [Field field_body 7 False, Field field_extends 4 False, Field field_name 2 False, Field field_qualifier 1 False]),
     (2823, [Field field_body 7 False, Field field_extends 4 False, Field field_name 2 False, Field field_qualifier 1 False, Field field_variables 6 False]),
     (2828, [Field field_extends 4 False, Field field_method 7 False, Field field_name 2 False, Field field_qualifier 1 False, Field field_variables 6 False]),
     (2833, [Field field_body 7 False, Field field_directives 6 False, Field field_extends 4 False, Field field_name 2 False, Field field_qualifier 1 False]),
     (2838, [Field field_directives 6 False, Field field_extends 4 False, Field field_name 2 False, Field field_qualifier 1 False, Field field_variables 7 False]),
     (2843, [Field field_directives 6 False, Field field_extends 4 False, Field field_method 7 False, Field field_name 2 False, Field field_qualifier 1 False]),
     (2848, [Field field_extends 4 False, Field field_name 2 False, Field field_qualifier 1 False, Field field_variables 7 False]),
     (2852, [Field field_directives 7 False, Field field_extends 4 False, Field field_name 2 False, Field field_qualifier 1 False]),
     (2856, [Field field_extends 4 False, Field field_method 7 False, Field field_name 2 False, Field field_qualifier 1 False]),
     (2860, [Field field_body 7 False, Field field_extends 4 False, Field field_method 6 False, Field field_name 2 False, Field field_qualifier 1 False]),
     (2865, [Field field_body 7 False, Field field_extends 4 False, Field field_method 5 False, Field field_name 2 False, Field field_qualifier 1 False]),
     (2870, [Field field_body 7 False, Field field_implements 5 False, Field field_name 2 False, Field field_qualifier 1 False]),
     (2874, [Field field_body 7 False, Field field_implements 5 False, Field field_name 2 False, Field field_qualifier 1 False, Field field_variables 6 False])]"

text \<open>Lines 11046 to 11191.\<close>

definition ts_field_map_entries_26 :: "(nat \<times> TSFieldMapEntry list) list" where
  "ts_field_map_entries_26 =
    [(2879, [Field field_implements 5 False, Field field_method 7 False, Field field_name 2 False, Field field_qualifier 1 False, Field field_variables 6 False]),
     (2884, [Field field_body 7 False, Field field_directives 6 False, Field field_implements 5 False, Field field_name 2 False, Field field_qualifier 1 False]),
     (2889, [Field field_directives 6 False, Field field_implements 5 False, Field field_name 2 False, Field field_qualifier 1 False, Field field_variables 7 False]),
     (2894, [Field field_directives 6 False, Field field_implements 5 False, Field field_method 7 False, Field field_name 2 False, Field field_qualifier 1 False]),
     (2899, [Field field_implements 5 False, Field field_name 2 False, Field field_qualifier 1 False, Field field_variables 7 False]),
     (2903, [Field field_directives 7 False, Field field_implements 5 False, Field field_name 2 False, Field field_qualifier 1 False]),
     (2907, [Field field_implements 5 False, Field field_method 7 False, Field field_name 2 False, Field field_qualifier 1 False]),
     (2911, [Field field_body 7 False, Field field_implements 5 False, Field field_method 6 False, Field field_name 2 False, Field field_qualifier 1 False]),
     (2916, [Field field_extends 5 False, Field field_implements 7 False, Field field_name 2 False, Field field_qualifier 1 False]),
     (2920, [Field field_body 7 False, Field field_extends 5 False, Field field_name 2 False, Field field_qualifier 1 False]),
     (2924, [Field field_body 7 False, Field field_extends 5 False, Field field_name 2 False, Field field_qualifier 1 False, Field field_variables 6 False]),
     (2929, [Field field_extends 5 False, Field field_method 7 False, Field field_name 2 False, Field field_qualifier 1 False, Field field_variables 6 False]),
     (2934, [Field field_body 7 False, Field field_directives 6 False, Field field_extends 5 False, Field field_name 2 False, Field field_qualifier 1 False]),
     (2939, [Field field_directives 6 False, Field field_extends 5 False, Field field_name 2 False, Field field_qualifier 1 False, Field field_variables 7 False]),
     (2944, [Field field_directives 6 False, Field field_extends 5 False, Field field_method 7 False, Field field_name 2 False, Field field_qualifier 1 False]),
     (2949, [Field field_extends 5 False, Field field_name 2 False, Field field_qualifier 1 False, Field field_variables 7 False]),
     (2953, [Field field_directives 7 False, Field field_extends 5 False, Field field_name 2 False, Field field_qualifier 1 False]),
     (2957, [Field field_extends 5 False, Field field_method 7 False, Field field_name 2 False, Field field_qualifier 1 False]),
     (2961, [Field field_body 7 False, Field field_extends 5 False, Field field_method 6 False, Field field_name 2 False, Field field_qualifier 1 False]),
     (2966, [Field field_body 7 False, Field field_method 5 False, Field field_name 2 False, Field field_qualifier 1 False, Field field_variables 4 False]),
     (2971, [Field field_body 7 False, Field field_directives 4 False, Field field_name 2 False, Field field_qualifier 1 False, Field field_variables 5 False]),
     (2976, [Field field_body 7 False, Field field_directives 4 False, Field field_method 6 False, Field field_name 2 False, Field field_qualifier 1 False, Field field_variables 5 False]),
     (2982, [Field field_body 7 False, Field field_directives 4 False, Field field_method 5 False, Field field_name 2 False, Field field_qualifier 1 False]),
     (2987, [Field field_body 7 False, Field field_implements 6 False, Field field_name 2 False, Field field_qualifier 1 False]),
     (2991, [Field field_implements 6 False, Field field_name 2 False, Field field_qualifier 1 False, Field field_variables 7 False]),
     (2995, [Field field_directives 7 False, Field field_implements 6 False, Field field_name 2 False, Field field_qualifier 1 False])]"

text \<open>Lines 11192 to 11340.\<close>

definition ts_field_map_entries_27 :: "(nat \<times> TSFieldMapEntry list) list" where
  "ts_field_map_entries_27 =
    [(2999, [Field field_implements 6 False, Field field_method 7 False, Field field_name 2 False, Field field_qualifier 1 False]),
     (3003, [Field field_body 7 False, Field field_name 2 False, Field field_qualifier 1 False, Field field_variables 5 False]),
     (3007, [Field field_body 7 False, Field field_method 6 False, Field field_name 2 False, Field field_qualifier 1 False, Field field_variables 5 False]),
     (3012, [Field field_body 7 False, Field field_directives 5 False, Field field_name 2 False, Field field_qualifier 1 False]),
     (3016, [Field field_body 7 False, Field field_directives 5 False, Field field_name 2 False, Field field_qualifier 1 False, Field field_variables 6 False]),
     (3021, [Field field_directives 5 False, Field field_method 7 False, Field field_name 2 False, Field field_qualifier 1 False, Field field_variables 6 False]),
     (3026, [Field field_body 7 False, Field field_directives 5 False, Field field_method 6 False, Field field_name 2 False, Field field_qualifier 1 False]),
     (3031, [Field field_body 7 False, Field field_name 2 False, Field field_qualifier 1 False]),
     (3034, [Field field_body 7 False, Field field_name 2 False, Field field_qualifier 1 False, Field field_variables 6 False]),
     (3038, [Field field_method 7 False, Field field_name 2 False, Field field_qualifier 1 False, Field field_variables 6 False]),
     (3042, [Field field_body 7 False, Field field_directives 6 False, Field field_name 2 False, Field field_qualifier 1 False]),
     (3046, [Field field_directives 6 False, Field field_name 2 False, Field field_qualifier 1 False, Field field_variables 7 False]),
     (3050, [Field field_directives 6 False, Field field_method 7 False, Field field_name 2 False, Field field_qualifier 1 False]),
     (3054, [Field field_body 7 False, Field field_method 6 False, Field field_name 2 False, Field field_qualifier 1 False]),
     (3058, [Field field_body 7 False, Field field_method 5 False, Field field_name 2 False, Field field_qualifier 1 False]),
     (3062, [Field field_body 7 False, Field field_directives 3 False, Field field_method 5 False, Field field_name 2 False, Field field_qualifier 1 False, Field field_variables 4 False]),
     (3068, [Field field_body 7 False, Field field_implements 3 False, Field field_method 5 False, Field field_name 1 False, Field field_variables 4 False]),
     (3073, [Field field_body 7 False, Field field_directives 4 False, Field field_implements 3 False, Field field_name 1 False, Field field_variables 5 False]),
     (3078, [Field field_body 7 False, Field field_directives 4 False, Field field_implements 3 False, Field field_method 6 False, Field field_name 1 False, Field field_variables 5 False]),
     (3084, [Field field_body 7 False, Field field_directives 4 False, Field field_implements 3 False, Field field_method 5 False, Field field_name 1 False]),
     (3089, [Field field_body 7 False, Field field_implements 3 False, Field field_name 1 False, Field field_variables 5 False]),
     (3093, [Field field_body 7 False, Field field_implements 3 False, Field field_method 6 False, Field field_name 1 False, Field field_variables 5 False]),
     (3098, [Field field_body 7 False, Field field_directives 5 False, Field field_implements 3 False, Field field_name 1 False]),
     (3102, [Field field_body 7 False, Field field_directives 5 False, Field field_implements 3 False, Field field_name 1 False, Field field_variables 6 False]),
     (3107, [Field field_directives 5 False, Field field_implements 3 False, Field field_method 7 False, Field field_name 1 False, Field field_variables 6 False]),
     (3112, [Field field_body 7 False, Field field_directives 5 False, Field field_implements 3 False, Field field_method 6 False, Field field_name 1 False]),
     (3117, [Field field_body 7 False, Field field_implements 3 False, Field field_method 5 False, Field field_name 1 False])]"

text \<open>Lines 11341 to 11489.\<close>

definition ts_field_map_entries_28 :: "(nat \<times> TSFieldMapEntry list) list" where
  "ts_field_map_entries_28 =
    [(3121, [Field field_body 7 False, Field field_extends 3 False, Field field_implements 5 False, Field field_name 1 False]),
     (3125, [Field field_body 7 False, Field field_extends 3 False, Field field_implements 5 False, Field field_name 1 False, Field field_variables 6 False]),
     (3130, [Field field_extends 3 False, Field field_implements 5 False, Field field_method 7 False, Field field_name 1 False, Field field_variables 6 False]),
     (3135, [Field field_body 7 False, Field field_directives 6 False, Field field_extends 3 False, Field field_implements 5 False, Field field_name 1 False]),
     (3140, [Field field_directives 6 False, Field field_extends 3 False, Field field_implements 5 False, Field field_name 1 False, Field field_variables 7 False]),
     (3145, [Field field_directives 6 False, Field field_extends 3 False, Field field_implements 5 False, Field field_method 7 False, Field field_name 1 False]),
     (3150, [Field field_extends 3 False, Field field_implements 5 False, Field field_name 1 False, Field field_variables 7 False]),
     (3154, [Field field_directives 7 False, Field field_extends 3 False, Field field_implements 5 False, Field field_name 1 False]),
     (3158, [Field field_extends 3 False, Field field_implements 5 False, Field field_method 7 False, Field field_name 1 False]),
     (3162, [Field field_body 7 False, Field field_extends 3 False, Field field_implements 5 False, Field field_method 6 False, Field field_name 1 False]),
     (3167, [Field field_body 7 False, Field field_extends 3 False, Field field_method 5 False, Field field_name 1 False, Field field_variables 4 False]),
     (3172, [Field field_body 7 False, Field field_directives 4 False, Field field_extends 3 False, Field field_name 1 False, Field field_variables 5 False]),
     (3177, [Field field_body 7 False, Field field_directives 4 False, Field field_extends 3 False, Field field_method 6 False, Field field_name 1 False, Field field_variables 5 False]),
     (3183, [Field field_body 7 False, Field field_directives 4 False, Field field_extends 3 False, Field field_method 5 False, Field field_name 1 False]),
     (3188, [Field field_body 7 False, Field field_extends 3 False, Field field_implements 6 False, Field field_name 1 False]),
     (3192, [Field field_extends 3 False, Field field_implements 6 False, Field field_name 1 False, Field field_variables 7 False]),
     (3196, [Field field_directives 7 False, Field field_extends 3 False, Field field_implements 6 False, Field field_name 1 False]),
     (3200, [Field field_extends 3 False, Field field_implements 6 False, Field field_method 7 False, Field field_name 1 False]),
     (3204, [Field field_body 7 False, Field field_extends 3 False, Field field_name 1 False, Field field_variables 5 False]),
     (3208, [Field field_body 7 False, Field field_extends 3 False, Field field_method 6 False, Field field_name 1 False, Field field_variables 5 False]),
     (3213, [Field field_body 7 False, Field field_directives 5 False, Field field_extends 3 False, Field field_name 1 False]),
     (3217, [Field field_body 7 False, Field field_directives 5 False, Field field_extends 3 False, Field field_name 1 False, Field field_variables 6 False]),
     (3222, [Field field_directives 5 False, Field field_extends 3 False, Field field_method 7 False, Field field_name 1 False, Field field_variables 6 False]),
     (3227, [Field field_body 7 False, Field field_directives 5 False, Field field_extends 3 False, Field field_method 6 False, Field field_name 1 False]),
     (3232, [Field field_body 7 False, Field field_extends 3 False, Field field_name 1 False]),
     (3235, [Field field_body 7 False, Field field_extends 3 False, Field field_name 1 False, Field field_variables 6 False]),
     (3239, [Field field_extends 3 False, Field field_method 7 False, Field field_name 1 False, Field field_variables 6 False])]"

text \<open>Lines 11490 to 11634.\<close>

definition ts_field_map_entries_29 :: "(nat \<times> TSFieldMapEntry list) list" where
  "ts_field_map_entries_29 =
    [(3243, [Field field_body 7 False, Field field_directives 6 False, Field field_extends 3 False, Field field_name 1 False]),
     (3247, [Field field_directives 6 False, Field field_extends 3 False, Field field_name 1 False, Field field_variables 7 False]),
     (3251, [Field field_directives 6 False, Field field_extends 3 False, Field field_method 7 False, Field field_name 1 False]),
     (3255, [Field field_body 7 False, Field field_extends 3 False, Field field_method 6 False, Field field_name 1 False]),
     (3259, [Field field_body 7 False, Field field_extends 3 False, Field field_method 5 False, Field field_name 1 False]),
     (3263, [Field field_variable_name 2 True]),
     (3264, [Field field_variable_name 0 True, Field field_variable_name 1 True]),
     (3266, [Field field_body 7 False, Field field_implements 4 False, Field field_name 1 False, Field field_variables 5 False]),
     (3270, [Field field_body 7 False, Field field_implements 4 False, Field field_method 6 False, Field field_name 1 False, Field field_variables 5 False]),
     (3275, [Field field_body 7 False, Field field_directives 5 False, Field field_implements 4 False, Field field_name 1 False]),
     (3279, [Field field_body 7 False, Field field_directives 5 False, Field field_implements 4 False, Field field_name 1 False, Field field_variables 6 False]),
     (3284, [Field field_directives 5 False, Field field_implements 4 False, Field field_method 7 False, Field field_name 1 False, Field field_variables 6 False]),
     (3289, [Field field_body 7 False, Field field_directives 5 False, Field field_implements 4 False, Field field_method 6 False, Field field_name 1 False]),
     (3294, [Field field_body 7 False, Field field_implements 4 False, Field field_name 1 False]),
     (3297, [Field field_body 7 False, Field field_implements 4 False, Field field_name 1 False, Field field_variables 6 False]),
     (3301, [Field field_implements 4 False, Field field_method 7 False, Field field_name 1 False, Field field_variables 6 False]),
     (3305, [Field field_body 7 False, Field field_directives 6 False, Field field_implements 4 False, Field field_name 1 False]),
     (3309, [Field field_directives 6 False, Field field_implements 4 False, Field field_name 1 False, Field field_variables 7 False]),
     (3313, [Field field_directives 6 False, Field field_implements 4 False, Field field_method 7 False, Field field_name 1 False]),
     (3317, [Field field_body 7 False, Field field_implements 4 False, Field field_method 6 False, Field field_name 1 False]),
     (3321, [Field field_body 7 False, Field field_implements 4 False, Field field_method 5 False, Field field_name 1 False]),
     (3325, [Field field_body 7 False, Field field_extends 4 False, Field field_implements 6 False, Field field_name 1 False]),
     (3329, [Field field_extends 4 False, Field field_implements 6 False, Field field_name 1 False, Field field_variables 7 False]),
     (3333, [Field field_directives 7 False, Field field_extends 4 False, Field field_implements 6 False, Field field_name 1 False]),
     (3337, [Field field_extends 4 False, Field field_implements 6 False, Field field_method 7 False, Field field_name 1 False]),
     (3341, [Field field_body 7 False, Field field_extends 4 False, Field field_name 1 False, Field field_variables 5 False]),
     (3345, [Field field_body 7 False, Field field_extends 4 False, Field field_method 6 False, Field field_name 1 False, Field field_variables 5 False]),
     (3350, [Field field_body 7 False, Field field_directives 5 False, Field field_extends 4 False, Field field_name 1 False]),
     (3354, [Field field_body 7 False, Field field_directives 5 False, Field field_extends 4 False, Field field_name 1 False, Field field_variables 6 False])]"

text \<open>Lines 11635 to 11783.\<close>

definition ts_field_map_entries_30 :: "(nat \<times> TSFieldMapEntry list) list" where
  "ts_field_map_entries_30 =
    [(3359, [Field field_directives 5 False, Field field_extends 4 False, Field field_method 7 False, Field field_name 1 False, Field field_variables 6 False]),
     (3364, [Field field_body 7 False, Field field_directives 5 False, Field field_extends 4 False, Field field_method 6 False, Field field_name 1 False]),
     (3369, [Field field_extends 4 False, Field field_implements 7 False, Field field_name 1 False]),
     (3372, [Field field_body 7 False, Field field_extends 4 False, Field field_name 1 False]),
     (3375, [Field field_body 7 False, Field field_extends 4 False, Field field_name 1 False, Field field_variables 6 False]),
     (3379, [Field field_extends 4 False, Field field_method 7 False, Field field_name 1 False, Field field_variables 6 False]),
     (3383, [Field field_body 7 False, Field field_directives 6 False, Field field_extends 4 False, Field field_name 1 False]),
     (3387, [Field field_directives 6 False, Field field_extends 4 False, Field field_name 1 False, Field field_variables 7 False]),
     (3391, [Field field_directives 6 False, Field field_extends 4 False, Field field_method 7 False, Field field_name 1 False]),
     (3395, [Field field_extends 4 False, Field field_name 1 False, Field field_variables 7 False]),
     (3398, [Field field_directives 7 False, Field field_extends 4 False, Field field_name 1 False]),
     (3401, [Field field_extends 4 False, Field field_method 7 False, Field field_name 1 False]),
     (3404, [Field field_body 7 False, Field field_extends 4 False, Field field_method 6 False, Field field_name 1 False]),
     (3408, [Field field_body 7 False, Field field_extends 4 False, Field field_method 5 False, Field field_name 1 False]),
     (3412, [Field field_body 7 False, Field field_directives 3 False, Field field_method 5 False, Field field_name 1 False, Field field_variables 4 False]),
     (3417, [Field field_body 7 False, Field field_implements 5 False, Field field_name 1 False]),
     (3420, [Field field_body 7 False, Field field_implements 5 False, Field field_name 1 False, Field field_variables 6 False]),
     (3424, [Field field_implements 5 False, Field field_method 7 False, Field field_name 1 False, Field field_variables 6 False]),
     (3428, [Field field_body 7 False, Field field_directives 6 False, Field field_implements 5 False, Field field_name 1 False]),
     (3432, [Field field_directives 6 False, Field field_implements 5 False, Field field_name 1 False, Field field_variables 7 False]),
     (3436, [Field field_directives 6 False, Field field_implements 5 False, Field field_method 7 False, Field field_name 1 False]),
     (3440, [Field field_implements 5 False, Field field_name 1 False, Field field_variables 7 False]),
     (3443, [Field field_directives 7 False, Field field_implements 5 False, Field field_name 1 False]),
     (3446, [Field field_implements 5 False, Field field_method 7 False, Field field_name 1 False]),
     (3449, [Field field_body 7 False, Field field_implements 5 False, Field field_method 6 False, Field field_name 1 False]),
     (3453, [Field field_body 7 False, Field field_method 5 False, Field field_name 1 False, Field field_variables 4 False]),
     (3457, [Field field_body 7 False, Field field_directives 4 False, Field field_name 1 False, Field field_variables 5 False]),
     (3461, [Field field_body 7 False, Field field_directives 4 False, Field field_method 6 False, Field field_name 1 False, Field field_variables 5 False]),
     (3466, [Field field_body 7 False, Field field_directives 4 False, Field field_method 5 False, Field field_name 1 False]),
     (3470, [Field field_body 7 False, Field field_name 1 False, Field field_variables 5 False]),
     (3473, [Field field_body 7 False, Field field_method 6 False, Field field_name 1 False, Field field_variables 5 False])]"

text \<open>Lines 11784 to 11929.\<close>

definition ts_field_map_entries_31 :: "(nat \<times> TSFieldMapEntry list) list" where
  "ts_field_map_entries_31 =
    [(3477, [Field field_body 7 False, Field field_directives 5 False, Field field_name 1 False]),
     (3480, [Field field_body 7 False, Field field_directives 5 False, Field field_name 1 False, Field field_variables 6 False]),
     (3484, [Field field_directives 5 False, Field field_method 7 False, Field field_name 1 False, Field field_variables 6 False]),
     (3488, [Field field_body 7 False, Field field_directives 5 False, Field field_method 6 False, Field field_name 1 False]),
     (3492, [Field field_body 7 False, Field field_method 5 False, Field field_name 1 False]),
     (3495, [Field field_implements 4 False, Field field_methods 7 False, Field field_modifier 1 False, Field field_name 2 False, Field field_variables 6 False]),
     (3500, [Field field_extends 4 False, Field field_implements 6 False, Field field_modifier 1 False, Field field_name 2 False, Field field_variables 7 False]),
     (3505, [Field field_extends 4 False, Field field_implements 6 False, Field field_methods 7 False, Field field_modifier 1 False, Field field_name 2 False]),
     (3510, [Field field_extends 4 False, Field field_implements 7 False, Field field_modifier 1 False, Field field_name 2 False]),
     (3514, [Field field_extends 4 False, Field field_methods 7 False, Field field_modifier 1 False, Field field_name 2 False, Field field_variables 6 False]),
     (3519, [Field field_extends 4 False, Field field_modifier 1 False, Field field_name 2 False, Field field_variables 7 False]),
     (3523, [Field field_extends 4 False, Field field_methods 7 False, Field field_modifier 1 False, Field field_name 2 False]),
     (3527, [Field field_implements 5 False, Field field_methods 7 False, Field field_modifier 1 False, Field field_name 2 False, Field field_variables 6 False]),
     (3532, [Field field_implements 5 False, Field field_modifier 1 False, Field field_name 2 False, Field field_variables 7 False]),
     (3536, [Field field_implements 5 False, Field field_methods 7 False, Field field_modifier 1 False, Field field_name 2 False]),
     (3540, [Field field_extends 5 False, Field field_implements 7 False, Field field_modifier 1 False, Field field_name 2 False]),
     (3544, [Field field_extends 5 False, Field field_methods 7 False, Field field_modifier 1 False, Field field_name 2 False, Field field_variables 6 False]),
     (3549, [Field field_extends 5 False, Field field_modifier 1 False, Field field_name 2 False, Field field_variables 7 False]),
     (3553, [Field field_extends 5 False, Field field_methods 7 False, Field field_modifier 1 False, Field field_name 2 False]),
     (3557, [Field field_implements 6 False, Field field_modifier 1 False, Field field_name 2 False, Field field_variables 7 False]),
     (3561, [Field field_implements 6 False, Field field_methods 7 False, Field field_modifier 1 False, Field field_name 2 False]),
     (3565, [Field field_methods 7 False, Field field_modifier 1 False, Field field_name 2 False, Field field_variables 6 False]),
     (3569, [Field field_directives 3 False, Field field_implements 5 False, Field field_methods 7 False, Field field_modifier 1 False, Field field_name 2 False, Field field_variables 6 False]),
     (3575, [Field field_directives 3 False, Field field_implements 5 False, Field field_modifier 1 False, Field field_name 2 False, Field field_variables 7 False]),
     (3580, [Field field_directives 3 False, Field field_implements 5 False, Field field_methods 7 False, Field field_modifier 1 False, Field field_name 2 False]),
     (3585, [Field field_directives 3 False, Field field_extends 5 False, Field field_implements 7 False, Field field_modifier 1 False, Field field_name 2 False]),
     (3590, [Field field_directives 3 False, Field field_extends 5 False, Field field_methods 7 False, Field field_modifier 1 False, Field field_name 2 False, Field field_variables 6 False])]"

text \<open>Lines 11930 to 12074.\<close>

definition ts_field_map_entries_32 :: "(nat \<times> TSFieldMapEntry list) list" where
  "ts_field_map_entries_32 =
    [(3596, [Field field_directives 3 False, Field field_extends 5 False, Field field_modifier 1 False, Field field_name 2 False, Field field_variables 7 False]),
     (3601, [Field field_directives 3 False, Field field_extends 5 False, Field field_methods 7 False, Field field_modifier 1 False, Field field_name 2 False]),
     (3606, [Field field_directives 3 False, Field field_implements 6 False, Field field_modifier 1 False, Field field_name 2 False, Field field_variables 7 False]),
     (3611, [Field field_directives 3 False, Field field_implements 6 False, Field field_methods 7 False, Field field_modifier 1 False, Field field_name 2 False]),
     (3616, [Field field_directives 3 False, Field field_extends 6 False, Field field_modifier 1 False, Field field_name 2 False, Field field_variables 7 False]),
     (3621, [Field field_directives 3 False, Field field_extends 6 False, Field field_methods 7 False, Field field_modifier 1 False, Field field_name 2 False]),
     (3626, [Field field_directives 3 False, Field field_implements 7 False, Field field_modifier 1 False, Field field_name 2 False]),
     (3630, [Field field_directives 3 False, Field field_methods 7 False, Field field_modifier 1 False, Field field_name 2 False, Field field_variables 6 False]),
     (3635, [Field field_directives 3 False, Field field_modifier 1 False, Field field_name 2 False, Field field_variables 7 False]),
     (3639, [Field field_directives 3 False, Field field_methods 7 False, Field field_modifier 1 False, Field field_name 2 False]),
     (3643, [Field field_extends 3 False, Field field_implements 5 False, Field field_methods 7 False, Field field_name 1 False, Field field_variables 6 False]),
     (3648, [Field field_extends 3 False, Field field_implements 5 False, Field field_methods 7 False, Field field_name 1 False]),
     (3652, [Field field_extends 3 False, Field field_implements 6 False, Field field_methods 7 False, Field field_name 1 False]),
     (3656, [Field field_extends 3 False, Field field_methods 7 False, Field field_name 1 False, Field field_variables 6 False]),
     (3660, [Field field_implements 4 False, Field field_methods 7 False, Field field_name 1 False, Field field_variables 6 False]),
     (3664, [Field field_extends 4 False, Field field_implements 6 False, Field field_methods 7 False, Field field_name 1 False]),
     (3668, [Field field_extends 4 False, Field field_methods 7 False, Field field_name 1 False, Field field_variables 6 False]),
     (3672, [Field field_extends 4 False, Field field_methods 7 False, Field field_name 1 False]),
     (3675, [Field field_implements 5 False, Field field_methods 7 False, Field field_name 1 False, Field field_variables 6 False]),
     (3679, [Field field_implements 5 False, Field field_methods 7 False, Field field_name 1 False]),
     (3682, [Field field_directives 2 False, Field field_implements 4 False, Field field_methods 7 False, Field field_name 1 False, Field field_variables 6 False]),
     (3687, [Field field_directives 2 False, Field field_extends 4 False, Field field_implements 6 False, Field field_name 1 False, Field field_variables 7 False]),
     (3692, [Field field_directives 2 False, Field field_extends 4 False, Field field_implements 6 False, Field field_methods 7 False, Field field_name 1 False]),
     (3697, [Field field_directives 2 False, Field field_extends 4 False, Field field_implements 7 False, Field field_name 1 False]),
     (3701, [Field field_directives 2 False, Field field_extends 4 False, Field field_methods 7 False, Field field_name 1 False, Field field_variables 6 False]),
     (3706, [Field field_directives 2 False, Field field_extends 4 False, Field field_name 1 False, Field field_variables 7 False]),
     (3710, [Field field_directives 2 False, Field field_extends 4 False, Field field_methods 7 False, Field field_name 1 False])]"

text \<open>Lines 12075 to 12220.\<close>

definition ts_field_map_entries_33 :: "(nat \<times> TSFieldMapEntry list) list" where
  "ts_field_map_entries_33 =
    [(3714, [Field field_directives 2 False, Field field_implements 5 False, Field field_methods 7 False, Field field_name 1 False, Field field_variables 6 False]),
     (3719, [Field field_directives 2 False, Field field_implements 5 False, Field field_name 1 False, Field field_variables 7 False]),
     (3723, [Field field_directives 2 False, Field field_implements 5 False, Field field_methods 7 False, Field field_name 1 False]),
     (3727, [Field field_directives 2 False, Field field_extends 5 False, Field field_implements 7 False, Field field_name 1 False]),
     (3731, [Field field_directives 2 False, Field field_extends 5 False, Field field_methods 7 False, Field field_name 1 False, Field field_variables 6 False]),
     (3736, [Field field_directives 2 False, Field field_extends 5 False, Field field_name 1 False, Field field_variables 7 False]),
     (3740, [Field field_directives 2 False, Field field_extends 5 False, Field field_methods 7 False, Field field_name 1 False]),
     (3744, [Field field_directives 2 False, Field field_implements 6 False, Field field_name 1 False, Field field_variables 7 False]),
     (3748, [Field field_directives 2 False, Field field_implements 6 False, Field field_methods 7 False, Field field_name 1 False]),
     (3752, [Field field_directives 2 False, Field field_methods 7 False, Field field_name 1 False, Field field_variables 6 False]),
     (3756, [Field field_data_type 4 False, Field field_name 2 False, Field field_variables 5 False]),
     (3759, [Field field_access 6 False, Field field_name 2 False, Field field_retain 1 False, Field field_task 3 False, Field field_task 4 False]),
     (3764, [Field field_access 5 False, Field field_configuration_elements 6 False, Field field_name 1 False, Field field_task 2 False, Field field_task 3 False]),
     (3769, [Field field_access 4 False, Field field_direction 5 False, Field field_name 0 False, Field field_path 2 False]),
     (3773, [Field field_global_variables 4 False, Field field_name 1 False, Field field_resource 5 False, Field field_resource_type_name 3 False]),
     (3777, [Field field_single 3 False]), (3778, [Field field_interval 3 False]),
     (3779, [Field field_priority 3 False]),
     (3780, [Field field_body 7 False, Field field_directives 5 False, Field field_name 2 False, Field field_pragmas 0 False, Field field_return_type 4 False, Field field_variables 6 False]),
     (3786, [Field field_body 7 False, Field field_directives 6 False, Field field_name 3 False, Field field_pragmas 0 False, Field field_return_type 5 False, Field field_spec 2 False]),
     (3792, [Field field_directives 6 False, Field field_name 3 False, Field field_pragmas 0 False, Field field_return_type 5 False, Field field_spec 2 False, Field field_variables 7 False]),
     (3798, [Field field_body 7 False, Field field_name 3 False, Field field_pragmas 0 False, Field field_return_type 5 False, Field field_spec 2 False, Field field_variables 6 False]),
     (3804, [Field field_body 7 False, Field field_implements 5 False, Field field_name 3 False, Field field_pragmas 0 False, Field field_qualifier 2 False]),
     (3809, [Field field_body 7 False, Field field_implements 5 False, Field field_name 3 False, Field field_pragmas 0 False, Field field_qualifier 2 False, Field field_variables 6 False]),
     (3815, [Field field_implements 5 False, Field field_method 7 False, Field field_name 3 False, Field field_pragmas 0 False, Field field_qualifier 2 False, Field field_variables 6 False]),
     (3821, [Field field_body 7 False, Field field_directives 6 False, Field field_implements 5 False, Field field_name 3 False, Field field_pragmas 0 False, Field field_qualifier 2 False]),
     (3827, [Field field_directives 6 False, Field field_implements 5 False, Field field_name 3 False, Field field_pragmas 0 False, Field field_qualifier 2 False, Field field_variables 7 False])]"

text \<open>Lines 12221 to 12366.\<close>

definition ts_field_map_entries_34 :: "(nat \<times> TSFieldMapEntry list) list" where
  "ts_field_map_entries_34 =
    [(3833, [Field field_directives 6 False, Field field_implements 5 False, Field field_method 7 False, Field field_name 3 False, Field field_pragmas 0 False, Field field_qualifier 2 False]),
     (3839, [Field field_implements 5 False, Field field_name 3 False, Field field_pragmas 0 False, Field field_qualifier 2 False, Field field_variables 7 False]),
     (3844, [Field field_directives 7 False, Field field_implements 5 False, Field field_name 3 False, Field field_pragmas 0 False, Field field_qualifier 2 False]),
     (3849, [Field field_implements 5 False, Field field_method 7 False, Field field_name 3 False, Field field_pragmas 0 False, Field field_qualifier 2 False]),
     (3854, [Field field_body 7 False, Field field_implements 5 False, Field field_method 6 False, Field field_name 3 False, Field field_pragmas 0 False, Field field_qualifier 2 False]),
     (3860, [Field field_extends 5 False, Field field_implements 7 False, Field field_name 3 False, Field field_pragmas 0 False, Field field_qualifier 2 False]),
     (3865, [Field field_body 7 False, Field field_extends 5 False, Field field_name 3 False, Field field_pragmas 0 False, Field field_qualifier 2 False]),
     (3870, [Field field_body 7 False, Field field_extends 5 False, Field field_name 3 False, Field field_pragmas 0 False, Field field_qualifier 2 False, Field field_variables 6 False]),
     (3876, [Field field_extends 5 False, Field field_method 7 False, Field field_name 3 False, Field field_pragmas 0 False, Field field_qualifier 2 False, Field field_variables 6 False]),
     (3882, [Field field_body 7 False, Field field_directives 6 False, Field field_extends 5 False, Field field_name 3 False, Field field_pragmas 0 False, Field field_qualifier 2 False]),
     (3888, [Field field_directives 6 False, Field field_extends 5 False, Field field_name 3 False, Field field_pragmas 0 False, Field field_qualifier 2 False, Field field_variables 7 False]),
     (3894, [Field field_directives 6 False, Field field_extends 5 False, Field field_method 7 False, Field field_name 3 False, Field field_pragmas 0 False, Field field_qualifier 2 False]),
     (3900, [Field field_extends 5 False, Field field_name 3 False, Field field_pragmas 0 False, Field field_qualifier 2 False, Field field_variables 7 False]),
     (3905, [Field field_directives 7 False, Field field_extends 5 False, Field field_name 3 False, Field field_pragmas 0 False, Field field_qualifier 2 False]),
     (3910, [Field field_extends 5 False, Field field_method 7 False, Field field_name 3 False, Field field_pragmas 0 False, Field field_qualifier 2 False]),
     (3915, [Field field_body 7 False, Field field_extends 5 False, Field field_method 6 False, Field field_name 3 False, Field field_pragmas 0 False, Field field_qualifier 2 False]),
     (3921, [Field field_body 7 False, Field field_implements 6 False, Field field_name 3 False, Field field_pragmas 0 False, Field field_qualifier 2 False]),
     (3926, [Field field_implements 6 False, Field field_name 3 False, Field field_pragmas 0 False, Field field_qualifier 2 False, Field field_variables 7 False]),
     (3931, [Field field_directives 7 False, Field field_implements 6 False, Field field_name 3 False, Field field_pragmas 0 False, Field field_qualifier 2 False]),
     (3936, [Field field_implements 6 False, Field field_method 7 False, Field field_name 3 False, Field field_pragmas 0 False, Field field_qualifier 2 False]),
     (3941, [Field field_body 7 False, Field field_extends 6 False, Field field_name 3 False, Field field_pragmas 0 False, Field field_qualifier 2 False]),
     (3946, [Field field_extends 6 False, Field field_name 3 False, Field field_pragmas 0 False, Field field_qualifier 2 False, Field field_variables 7 False]),
     (3951, [Field field_directives 7 False, Field field_extends 6 False, Field field_name 3 False, Field field_pragmas 0 False, Field field_qualifier 2 False])]"

text \<open>Lines 12367 to 12514.\<close>

definition ts_field_map_entries_35 :: "(nat \<times> TSFieldMapEntry list) list" where
  "ts_field_map_entries_35 =
    [(3956, [Field field_extends 6 False, Field field_method 7 False, Field field_name 3 False, Field field_pragmas 0 False, Field field_qualifier 2 False]),
     (3961, [Field field_body 7 False, Field field_name 3 False, Field field_pragmas 0 False, Field field_qualifier 2 False, Field field_variables 5 False]),
     (3966, [Field field_body 7 False, Field field_method 6 False, Field field_name 3 False, Field field_pragmas 0 False, Field field_qualifier 2 False, Field field_variables 5 False]),
     (3972, [Field field_body 7 False, Field field_directives 5 False, Field field_name 3 False, Field field_pragmas 0 False, Field field_qualifier 2 False]),
     (3977, [Field field_body 7 False, Field field_directives 5 False, Field field_name 3 False, Field field_pragmas 0 False, Field field_qualifier 2 False, Field field_variables 6 False]),
     (3983, [Field field_directives 5 False, Field field_method 7 False, Field field_name 3 False, Field field_pragmas 0 False, Field field_qualifier 2 False, Field field_variables 6 False]),
     (3989, [Field field_body 7 False, Field field_directives 5 False, Field field_method 6 False, Field field_name 3 False, Field field_pragmas 0 False, Field field_qualifier 2 False]),
     (3995, [Field field_implements 7 False, Field field_name 3 False, Field field_pragmas 0 False, Field field_qualifier 2 False]),
     (3999, [Field field_body 7 False, Field field_name 3 False, Field field_pragmas 0 False, Field field_qualifier 2 False]),
     (4003, [Field field_body 7 False, Field field_name 3 False, Field field_pragmas 0 False, Field field_qualifier 2 False, Field field_variables 6 False]),
     (4008, [Field field_method 7 False, Field field_name 3 False, Field field_pragmas 0 False, Field field_qualifier 2 False, Field field_variables 6 False]),
     (4013, [Field field_body 7 False, Field field_directives 6 False, Field field_name 3 False, Field field_pragmas 0 False, Field field_qualifier 2 False]),
     (4018, [Field field_directives 6 False, Field field_name 3 False, Field field_pragmas 0 False, Field field_qualifier 2 False, Field field_variables 7 False]),
     (4023, [Field field_directives 6 False, Field field_method 7 False, Field field_name 3 False, Field field_pragmas 0 False, Field field_qualifier 2 False]),
     (4028, [Field field_name 3 False, Field field_pragmas 0 False, Field field_qualifier 2 False, Field field_variables 7 False]),
     (4032, [Field field_directives 7 False, Field field_name 3 False, Field field_pragmas 0 False, Field field_qualifier 2 False]),
     (4036, [Field field_method 7 False, Field field_name 3 False, Field field_pragmas 0 False, Field field_qualifier 2 False]),
     (4040, [Field field_body 7 False, Field field_method 6 False, Field field_name 3 False, Field field_pragmas 0 False, Field field_qualifier 2 False]),
     (4045, [Field field_body 7 False, Field field_method 5 False, Field field_name 3 False, Field field_pragmas 0 False, Field field_qualifier 2 False]),
     (4050, [Field field_body 7 False, Field field_method 5 False, Field field_name 3 False, Field field_pragmas 0 False, Field field_qualifier 2 False, Field field_variables 4 False]),
     (4056, [Field field_body 7 False, Field field_directives 4 False, Field field_name 3 False, Field field_pragmas 0 False, Field field_qualifier 2 False, Field field_variables 5 False]),
     (4062, [Field field_body 7 False, Field field_directives 4 False, Field field_method 6 False, Field field_name 3 False, Field field_pragmas 0 False, Field field_qualifier 2 False, Field field_variables 5 False]),
     (4069, [Field field_body 7 False, Field field_directives 4 False, Field field_method 5 False, Field field_name 3 False, Field field_pragmas 0 False, Field field_qualifier 2 False]),
     (4075, [Field field_body 7 False, Field field_implements 4 False, Field field_name 2 False, Field field_pragmas 0 False, Field field_variables 5 False])]"

text \<open>Lines 12515 to 12664.\<close>

definition ts_field_map_entries_36 :: "(nat \<times> TSFieldMapEntry list) list" where
  "ts_field_map_entries_36 =
    [(4080, [Field field_body 7 False, Field field_implements 4 False, Field field_method 6 False, Field field_name 2 False, Field field_pragmas 0 False, Field field_variables 5 False]),
     (4086, [Field field_body 7 False, Field field_directives 5 False, Field field_implements 4 False, Field field_name 2 False, Field field_pragmas 0 False]),
     (4091, [Field field_body 7 False, Field field_directives 5 False, Field field_implements 4 False, Field field_name 2 False, Field field_pragmas 0 False, Field field_variables 6 False]),
     (4097, [Field field_directives 5 False, Field field_implements 4 False, Field field_method 7 False, Field field_name 2 False, Field field_pragmas 0 False, Field field_variables 6 False]),
     (4103, [Field field_body 7 False, Field field_directives 5 False, Field field_implements 4 False, Field field_method 6 False, Field field_name 2 False, Field field_pragmas 0 False]),
     (4109, [Field field_body 7 False, Field field_implements 4 False, Field field_name 2 False, Field field_pragmas 0 False]),
     (4113, [Field field_body 7 False, Field field_implements 4 False, Field field_name 2 False, Field field_pragmas 0 False, Field field_variables 6 False]),
     (4118, [Field field_implements 4 False, Field field_method 7 False, Field field_name 2 False, Field field_pragmas 0 False, Field field_variables 6 False]),
     (4123, [Field field_body 7 False, Field field_directives 6 False, Field field_implements 4 False, Field field_name 2 False, Field field_pragmas 0 False]),
     (4128, [Field field_directives 6 False, Field field_implements 4 False, Field field_name 2 False, Field field_pragmas 0 False, Field field_variables 7 False]),
     (4133, [Field field_directives 6 False, Field field_implements 4 False, Field field_method 7 False, Field field_name 2 False, Field field_pragmas 0 False]),
     (4138, [Field field_body 7 False, Field field_implements 4 False, Field field_method 6 False, Field field_name 2 False, Field field_pragmas 0 False]),
     (4143, [Field field_body 7 False, Field field_implements 4 False, Field field_method 5 False, Field field_name 2 False, Field field_pragmas 0 False]),
     (4148, [Field field_body 7 False, Field field_extends 4 False, Field field_implements 6 False, Field field_name 2 False, Field field_pragmas 0 False]),
     (4153, [Field field_extends 4 False, Field field_implements 6 False, Field field_name 2 False, Field field_pragmas 0 False, Field field_variables 7 False]),
     (4158, [Field field_directives 7 False, Field field_extends 4 False, Field field_implements 6 False, Field field_name 2 False, Field field_pragmas 0 False]),
     (4163, [Field field_extends 4 False, Field field_implements 6 False, Field field_method 7 False, Field field_name 2 False, Field field_pragmas 0 False]),
     (4168, [Field field_body 7 False, Field field_extends 4 False, Field field_name 2 False, Field field_pragmas 0 False, Field field_variables 5 False]),
     (4173, [Field field_body 7 False, Field field_extends 4 False, Field field_method 6 False, Field field_name 2 False, Field field_pragmas 0 False, Field field_variables 5 False]),
     (4179, [Field field_body 7 False, Field field_directives 5 False, Field field_extends 4 False, Field field_name 2 False, Field field_pragmas 0 False]),
     (4184, [Field field_body 7 False, Field field_directives 5 False, Field field_extends 4 False, Field field_name 2 False, Field field_pragmas 0 False, Field field_variables 6 False]),
     (4190, [Field field_directives 5 False, Field field_extends 4 False, Field field_method 7 False, Field field_name 2 False, Field field_pragmas 0 False, Field field_variables 6 False]),
     (4196, [Field field_body 7 False, Field field_directives 5 False, Field field_extends 4 False, Field field_method 6 False, Field field_name 2 False, Field field_pragmas 0 False]),
     (4202, [Field field_extends 4 False, Field field_implements 7 False, Field field_name 2 False, Field field_pragmas 0 False])]"

text \<open>Lines 12665 to 12810.\<close>

definition ts_field_map_entries_37 :: "(nat \<times> TSFieldMapEntry list) list" where
  "ts_field_map_entries_37 =
    [(4206, [Field field_body 7 False, Field field_extends 4 False, Field field_name 2 False, Field field_pragmas 0 False]),
     (4210, [Field field_body 7 False, Field field_extends 4 False, Field field_name 2 False, Field field_pragmas 0 False, Field field_variables 6 False]),
     (4215, [Field field_extends 4 False, Field field_method 7 False, Field field_name 2 False, Field field_pragmas 0 False, Field field_variables 6 False]),
     (4220, [Field field_body 7 False, Field field_directives 6 False, Field field_extends 4 False, Field field_name 2 False, Field field_pragmas 0 False]),
     (4225, [Field field_directives 6 False, Field field_extends 4 False, Field field_name 2 False, Field field_pragmas 0 False, Field field_variables 7 False]),
     (4230, [Field field_directives 6 False, Field field_extends 4 False, Field field_method 7 False, Field field_name 2 False, Field field_pragmas 0 False]),
     (4235, [Field field_extends 4 False, Field field_name 2 False, Field field_pragmas 0 False, Field field_variables 7 False]),
     (4239, [Field field_directives 7 False, Field field_extends 4 False, Field field_name 2 False, Field field_pragmas 0 False]),
     (4243, [Field field_extends 4 False, Field field_method 7 False, Field field_name 2 False, Field field_pragmas 0 False]),
     (4247, [Field field_body 7 False, Field field_extends 4 False, Field field_method 6 False, Field field_name 2 False, Field field_pragmas 0 False]),
     (4252, [Field field_body 7 False, Field field_extends 4 False, Field field_method 5 False, Field field_name 2 False, Field field_pragmas 0 False]),
     (4257, [Field field_body 7 False, Field field_implements 5 False, Field field_name 2 False, Field field_pragmas 0 False]),
     (4261, [Field field_body 7 False, Field field_implements 5 False, Field field_name 2 False, Field field_pragmas 0 False, Field field_variables 6 False]),
     (4266, [Field field_implements 5 False, Field field_method 7 False, Field field_name 2 False, Field field_pragmas 0 False, Field field_variables 6 False]),
     (4271, [Field field_body 7 False, Field field_directives 6 False, Field field_implements 5 False, Field field_name 2 False, Field field_pragmas 0 False]),
     (4276, [Field field_directives 6 False, Field field_implements 5 False, Field field_name 2 False, Field field_pragmas 0 False, Field field_variables 7 False]),
     (4281, [Field field_directives 6 False, Field field_implements 5 False, Field field_method 7 False, Field field_name 2 False, Field field_pragmas 0 False]),
     (4286, [Field field_implements 5 False, Field field_name 2 False, Field field_pragmas 0 False, Field field_variables 7 False]),
     (4290, [Field field_directives 7 False, Field field_implements 5 False, Field field_name 2 False, Field field_pragmas 0 False]),
     (4294, [Field field_implements 5 False, Field field_method 7 False, Field field_name 2 False, Field field_pragmas 0 False]),
     (4298, [Field field_body 7 False, Field field_implements 5 False, Field field_method 6 False, Field field_name 2 False, Field field_pragmas 0 False]),
     (4303, [Field field_extends 5 False, Field field_implements 7 False, Field field_name 2 False, Field field_pragmas 0 False]),
     (4307, [Field field_body 7 False, Field field_extends 5 False, Field field_name 2 False, Field field_pragmas 0 False]),
     (4311, [Field field_body 7 False, Field field_extends 5 False, Field field_name 2 False, Field field_pragmas 0 False, Field field_variables 6 False]),
     (4316, [Field field_extends 5 False, Field field_method 7 False, Field field_name 2 False, Field field_pragmas 0 False, Field field_variables 6 False]),
     (4321, [Field field_body 7 False, Field field_directives 6 False, Field field_extends 5 False, Field field_name 2 False, Field field_pragmas 0 False])]"

text \<open>Lines 12811 to 12956.\<close>

definition ts_field_map_entries_38 :: "(nat \<times> TSFieldMapEntry list) list" where
  "ts_field_map_entries_38 =
    [(4326, [Field field_directives 6 False, Field field_extends 5 False, Field field_name 2 False, Field field_pragmas 0 False, Field field_variables 7 False]),
     (4331, [Field field_directives 6 False, Field field_extends 5 False, Field field_method 7 False, Field field_name 2 False, Field field_pragmas 0 False]),
     (4336, [Field field_extends 5 False, Field field_name 2 False, Field field_pragmas 0 False, Field field_variables 7 False]),
     (4340, [Field field_directives 7 False, Field field_extends 5 False, Field field_name 2 False, Field field_pragmas 0 False]),
     (4344, [Field field_extends 5 False, Field field_method 7 False, Field field_name 2 False, Field field_pragmas 0 False]),
     (4348, [Field field_body 7 False, Field field_extends 5 False, Field field_method 6 False, Field field_name 2 False, Field field_pragmas 0 False]),
     (4353, [Field field_body 7 False, Field field_method 5 False, Field field_name 2 False, Field field_pragmas 0 False, Field field_variables 4 False]),
     (4358, [Field field_body 7 False, Field field_directives 4 False, Field field_name 2 False, Field field_pragmas 0 False, Field field_variables 5 False]),
     (4363, [Field field_body 7 False, Field field_directives 4 False, Field field_method 6 False, Field field_name 2 False, Field field_pragmas 0 False, Field field_variables 5 False]),
     (4369, [Field field_body 7 False, Field field_directives 4 False, Field field_method 5 False, Field field_name 2 False, Field field_pragmas 0 False]),
     (4374, [Field field_body 7 False, Field field_implements 6 False, Field field_name 2 False, Field field_pragmas 0 False]),
     (4378, [Field field_implements 6 False, Field field_name 2 False, Field field_pragmas 0 False, Field field_variables 7 False]),
     (4382, [Field field_directives 7 False, Field field_implements 6 False, Field field_name 2 False, Field field_pragmas 0 False]),
     (4386, [Field field_implements 6 False, Field field_method 7 False, Field field_name 2 False, Field field_pragmas 0 False]),
     (4390, [Field field_body 7 False, Field field_name 2 False, Field field_pragmas 0 False, Field field_variables 5 False]),
     (4394, [Field field_body 7 False, Field field_method 6 False, Field field_name 2 False, Field field_pragmas 0 False, Field field_variables 5 False]),
     (4399, [Field field_body 7 False, Field field_directives 5 False, Field field_name 2 False, Field field_pragmas 0 False]),
     (4403, [Field field_body 7 False, Field field_directives 5 False, Field field_name 2 False, Field field_pragmas 0 False, Field field_variables 6 False]),
     (4408, [Field field_directives 5 False, Field field_method 7 False, Field field_name 2 False, Field field_pragmas 0 False, Field field_variables 6 False]),
     (4413, [Field field_body 7 False, Field field_directives 5 False, Field field_method 6 False, Field field_name 2 False, Field field_pragmas 0 False]),
     (4418, [Field field_body 7 False, Field field_name 2 False, Field field_pragmas 0 False]),
     (4421, [Field field_body 7 False, Field field_name 2 False, Field field_pragmas 0 False, Field field_variables 6 False]),
     (4425, [Field field_method 7 False, Field field_name 2 False, Field field_pragmas 0 False, Field field_variables 6 False]),
     (4429, [Field field_body 7 False, Field field_directives 6 False, Field field_name 2 False, Field field_pragmas 0 False]),
     (4433, [Field field_directives 6 False, Field field_name 2 False, Field field_pragmas 0 False, Field field_variables 7 False]),
     (4437, [Field field_directives 6 False, Field field_method 7 False, Field field_name 2 False, Field field_pragmas 0 False]),
     (4441, [Field field_body 7 False, Field field_method 6 False, Field field_name 2 False, Field field_pragmas 0 False])]"

text \<open>Lines 12957 to 13106.\<close>

definition ts_field_map_entries_39 :: "(nat \<times> TSFieldMapEntry list) list" where
  "ts_field_map_entries_39 =
    [(4445, [Field field_body 7 False, Field field_method 5 False, Field field_name 2 False, Field field_pragmas 0 False]),
     (4449, [Field field_body 7 False, Field field_directives 3 False, Field field_method 5 False, Field field_name 2 False, Field field_pragmas 0 False, Field field_variables 4 False]),
     (4455, [Field field_attributes 2 False, Field field_init 5 False, Field field_name 1 False, Field field_retain 0 False, Field field_spec 4 False]),
     (4460, [Field field_index 0 False, Field field_values 2 False]),
     (4462, [Field field_dimensions 1 False]),
     (4463, [Field field_dimensions 0 True, Field field_dimensions 1 True]),
     (4465, [Field field__override 2 False, Field field_body 6 False, Field field_modifier 1 False, Field field_name 3 False, Field field_return_type 5 False]),
     (4470, [Field field__override 2 False, Field field_modifier 1 False, Field field_name 3 False, Field field_return_type 5 False, Field field_variables 6 False]),
     (4475, [Field field_body 6 False, Field field_modifier 1 False, Field field_name 2 False, Field field_return_type 4 False, Field field_variables 5 False]),
     (4480, [Field field__override 1 False, Field field_body 6 False, Field field_name 2 False, Field field_return_type 4 False, Field field_variables 5 False]),
     (4485, [Field field__override 3 False, Field field_access 1 False, Field field_modifier 2 False, Field field_name 4 False, Field field_return_type 6 False]),
     (4490, [Field field__override 3 False, Field field_access 1 False, Field field_body 6 False, Field field_modifier 2 False, Field field_name 4 False, Field field_variables 5 False]),
     (4496, [Field field_access 1 False, Field field_body 6 False, Field field_modifier 2 False, Field field_name 3 False, Field field_return_type 5 False]),
     (4501, [Field field_access 1 False, Field field_modifier 2 False, Field field_name 3 False, Field field_return_type 5 False, Field field_variables 6 False]),
     (4506, [Field field__override 2 False, Field field_access 1 False, Field field_body 6 False, Field field_name 3 False, Field field_return_type 5 False]),
     (4511, [Field field__override 2 False, Field field_access 1 False, Field field_name 3 False, Field field_return_type 5 False, Field field_variables 6 False]),
     (4516, [Field field_access 1 False, Field field_body 6 False, Field field_name 2 False, Field field_return_type 4 False, Field field_variables 5 False]),
     (4521, [Field field_access 6 False, Field field_name 0 False, Field field_variable 2 False]),
     (4524, [Field field_else_body 6 False, Field field_else_if 4 False, Field field_if_body 3 False, Field field_if_cond 1 False]),
     (4528, [Field field_end_value 3 False, Field field_initial_value 1 False, Field field_step 5 False]),
     (4531, [Field field__override 3 False, Field field_modifier 2 False, Field field_name 4 False, Field field_pragmas 0 False, Field field_return_type 6 False]),
     (4536, [Field field__override 3 False, Field field_body 6 False, Field field_modifier 2 False, Field field_name 4 False, Field field_pragmas 0 False, Field field_variables 5 False]),
     (4542, [Field field_body 6 False, Field field_modifier 2 False, Field field_name 3 False, Field field_pragmas 0 False, Field field_return_type 5 False]),
     (4547, [Field field_modifier 2 False, Field field_name 3 False, Field field_pragmas 0 False, Field field_return_type 5 False, Field field_variables 6 False]),
     (4552, [Field field__override 2 False, Field field_body 6 False, Field field_name 3 False, Field field_pragmas 0 False, Field field_return_type 5 False]),
     (4557, [Field field__override 2 False, Field field_name 3 False, Field field_pragmas 0 False, Field field_return_type 5 False, Field field_variables 6 False]),
     (4562, [Field field__override 4 False, Field field_access 2 False, Field field_body 6 False, Field field_modifier 3 False, Field field_name 5 False, Field field_pragmas 0 False])]"

text \<open>Lines 13107 to 13253.\<close>

definition ts_field_map_entries_40 :: "(nat \<times> TSFieldMapEntry list) list" where
  "ts_field_map_entries_40 =
    [(4568, [Field field__override 4 False, Field field_access 2 False, Field field_modifier 3 False, Field field_name 5 False, Field field_pragmas 0 False, Field field_variables 6 False]),
     (4574, [Field field_access 2 False, Field field_modifier 3 False, Field field_name 4 False, Field field_pragmas 0 False, Field field_return_type 6 False]),
     (4579, [Field field_access 2 False, Field field_body 6 False, Field field_modifier 3 False, Field field_name 4 False, Field field_pragmas 0 False, Field field_variables 5 False]),
     (4585, [Field field__override 3 False, Field field_access 2 False, Field field_name 4 False, Field field_pragmas 0 False, Field field_return_type 6 False]),
     (4590, [Field field__override 3 False, Field field_access 2 False, Field field_body 6 False, Field field_name 4 False, Field field_pragmas 0 False, Field field_variables 5 False]),
     (4596, [Field field_access 2 False, Field field_body 6 False, Field field_name 3 False, Field field_pragmas 0 False, Field field_return_type 5 False]),
     (4601, [Field field_access 2 False, Field field_name 3 False, Field field_pragmas 0 False, Field field_return_type 5 False, Field field_variables 6 False]),
     (4606, [Field field_body 8 False, Field field_implements 4 False, Field field_method 6 False, Field field_name 2 False, Field field_qualifier 1 False, Field field_variables 5 False]),
     (4612, [Field field_body 8 False, Field field_directives 5 False, Field field_implements 4 False, Field field_name 2 False, Field field_qualifier 1 False, Field field_variables 6 False]),
     (4618, [Field field_body 8 False, Field field_directives 5 False, Field field_implements 4 False, Field field_method 7 False, Field field_name 2 False, Field field_qualifier 1 False, Field field_variables 6 False]),
     (4625, [Field field_body 8 False, Field field_directives 5 False, Field field_implements 4 False, Field field_method 6 False, Field field_name 2 False, Field field_qualifier 1 False]),
     (4631, [Field field_body 8 False, Field field_implements 4 False, Field field_name 2 False, Field field_qualifier 1 False, Field field_variables 6 False]),
     (4636, [Field field_body 8 False, Field field_implements 4 False, Field field_method 7 False, Field field_name 2 False, Field field_qualifier 1 False, Field field_variables 6 False]),
     (4642, [Field field_body 8 False, Field field_directives 6 False, Field field_implements 4 False, Field field_name 2 False, Field field_qualifier 1 False]),
     (4647, [Field field_body 8 False, Field field_directives 6 False, Field field_implements 4 False, Field field_name 2 False, Field field_qualifier 1 False, Field field_variables 7 False]),
     (4653, [Field field_directives 6 False, Field field_implements 4 False, Field field_method 8 False, Field field_name 2 False, Field field_qualifier 1 False, Field field_variables 7 False]),
     (4659, [Field field_body 8 False, Field field_directives 6 False, Field field_implements 4 False, Field field_method 7 False, Field field_name 2 False, Field field_qualifier 1 False]),
     (4665, [Field field_body 8 False, Field field_implements 4 False, Field field_method 6 False, Field field_name 2 False, Field field_qualifier 1 False]),
     (4670, [Field field_body 8 False, Field field_extends 4 False, Field field_implements 6 False, Field field_name 2 False, Field field_qualifier 1 False]),
     (4675, [Field field_body 8 False, Field field_extends 4 False, Field field_implements 6 False, Field field_name 2 False, Field field_qualifier 1 False, Field field_variables 7 False]),
     (4681, [Field field_extends 4 False, Field field_implements 6 False, Field field_method 8 False, Field field_name 2 False, Field field_qualifier 1 False, Field field_variables 7 False]),
     (4687, [Field field_body 8 False, Field field_directives 7 False, Field field_extends 4 False, Field field_implements 6 False, Field field_name 2 False, Field field_qualifier 1 False])]"

text \<open>Lines 13254 to 13402.\<close>

definition ts_field_map_entries_41 :: "(nat \<times> TSFieldMapEntry list) list" where
  "ts_field_map_entries_41 =
    [(4693, [Field field_directives 7 False, Field field_extends 4 False, Field field_implements 6 False, Field field_name 2 False, Field field_qualifier 1 False, Field field_variables 8 False]),
     (4699, [Field field_directives 7 False, Field field_extends 4 False, Field field_implements 6 False, Field field_method 8 False, Field field_name 2 False, Field field_qualifier 1 False]),
     (4705, [Field field_extends 4 False, Field field_implements 6 False, Field field_name 2 False, Field field_qualifier 1 False, Field field_variables 8 False]),
     (4710, [Field field_directives 8 False, Field field_extends 4 False, Field field_implements 6 False, Field field_name 2 False, Field field_qualifier 1 False]),
     (4715, [Field field_extends 4 False, Field field_implements 6 False, Field field_method 8 False, Field field_name 2 False, Field field_qualifier 1 False]),
     (4720, [Field field_body 8 False, Field field_extends 4 False, Field field_implements 6 False, Field field_method 7 False, Field field_name 2 False, Field field_qualifier 1 False]),
     (4726, [Field field_body 8 False, Field field_extends 4 False, Field field_method 6 False, Field field_name 2 False, Field field_qualifier 1 False, Field field_variables 5 False]),
     (4732, [Field field_body 8 False, Field field_directives 5 False, Field field_extends 4 False, Field field_name 2 False, Field field_qualifier 1 False, Field field_variables 6 False]),
     (4738, [Field field_body 8 False, Field field_directives 5 False, Field field_extends 4 False, Field field_method 7 False, Field field_name 2 False, Field field_qualifier 1 False, Field field_variables 6 False]),
     (4745, [Field field_body 8 False, Field field_directives 5 False, Field field_extends 4 False, Field field_method 6 False, Field field_name 2 False, Field field_qualifier 1 False]),
     (4751, [Field field_body 8 False, Field field_extends 4 False, Field field_implements 7 False, Field field_name 2 False, Field field_qualifier 1 False]),
     (4756, [Field field_extends 4 False, Field field_implements 7 False, Field field_name 2 False, Field field_qualifier 1 False, Field field_variables 8 False]),
     (4761, [Field field_directives 8 False, Field field_extends 4 False, Field field_implements 7 False, Field field_name 2 False, Field field_qualifier 1 False]),
     (4766, [Field field_extends 4 False, Field field_implements 7 False, Field field_method 8 False, Field field_name 2 False, Field field_qualifier 1 False]),
     (4771, [Field field_body 8 False, Field field_extends 4 False, Field field_name 2 False, Field field_qualifier 1 False, Field field_variables 6 False]),
     (4776, [Field field_body 8 False, Field field_extends 4 False, Field field_method 7 False, Field field_name 2 False, Field field_qualifier 1 False, Field field_variables 6 False]),
     (4782, [Field field_body 8 False, Field field_directives 6 False, Field field_extends 4 False, Field field_name 2 False, Field field_qualifier 1 False]),
     (4787, [Field field_body 8 False, Field field_directives 6 False, Field field_extends 4 False, Field field_name 2 False, Field field_qualifier 1 False, Field field_variables 7 False]),
     (4793, [Field field_directives 6 False, Field field_extends 4 False, Field field_method 8 False, Field field_name 2 False, Field field_qualifier 1 False, Field field_variables 7 False]),
     (4799, [Field field_body 8 False, Field field_directives 6 False, Field field_extends 4 False, Field field_method 7 False, Field field_name 2 False, Field field_qualifier 1 False]),
     (4805, [Field field_body 8 False, Field field_extends 4 False, Field field_name 2 False, Field field_qualifier 1 False]),
     (4809, [Field field_body 8 False, Field field_extends 4 False, Field field_name 2 False, Field field_qualifier 1 False, Field field_variables 7 False]),
     (4814, [Field field_extends 4 False, Field field_method 8 False, Field field_name 2 False, Field field_qualifier 1 False, Field field_variables 7 False])]"

text \<open>Lines 13403 to 13549.\<close>

definition ts_field_map_entries_42 :: "(nat \<times> TSFieldMapEntry list) list" where
  "ts_field_map_entries_42 =
    [(4819, [Field field_body 8 False, Field field_directives 7 False, Field field_extends 4 False, Field field_name 2 False, Field field_qualifier 1 False]),
     (4824, [Field field_directives 7 False, Field field_extends 4 False, Field field_name 2 False, Field field_qualifier 1 False, Field field_variables 8 False]),
     (4829, [Field field_directives 7 False, Field field_extends 4 False, Field field_method 8 False, Field field_name 2 False, Field field_qualifier 1 False]),
     (4834, [Field field_body 8 False, Field field_extends 4 False, Field field_method 7 False, Field field_name 2 False, Field field_qualifier 1 False]),
     (4839, [Field field_body 8 False, Field field_extends 4 False, Field field_method 6 False, Field field_name 2 False, Field field_qualifier 1 False]),
     (4844, [Field field_body 8 False, Field field_implements 5 False, Field field_name 2 False, Field field_qualifier 1 False, Field field_variables 6 False]),
     (4849, [Field field_body 8 False, Field field_implements 5 False, Field field_method 7 False, Field field_name 2 False, Field field_qualifier 1 False, Field field_variables 6 False]),
     (4855, [Field field_body 8 False, Field field_directives 6 False, Field field_implements 5 False, Field field_name 2 False, Field field_qualifier 1 False]),
     (4860, [Field field_body 8 False, Field field_directives 6 False, Field field_implements 5 False, Field field_name 2 False, Field field_qualifier 1 False, Field field_variables 7 False]),
     (4866, [Field field_directives 6 False, Field field_implements 5 False, Field field_method 8 False, Field field_name 2 False, Field field_qualifier 1 False, Field field_variables 7 False]),
     (4872, [Field field_body 8 False, Field field_directives 6 False, Field field_implements 5 False, Field field_method 7 False, Field field_name 2 False, Field field_qualifier 1 False]),
     (4878, [Field field_body 8 False, Field field_implements 5 False, Field field_name 2 False, Field field_qualifier 1 False]),
     (4882, [Field field_body 8 False, Field field_implements 5 False, Field field_name 2 False, Field field_qualifier 1 False, Field field_variables 7 False]),
     (4887, [Field field_implements 5 False, Field field_method 8 False, Field field_name 2 False, Field field_qualifier 1 False, Field field_variables 7 False]),
     (4892, [Field field_body 8 False, Field field_directives 7 False, Field field_implements 5 False, Field field_name 2 False, Field field_qualifier 1 False]),
     (4897, [Field field_directives 7 False, Field field_implements 5 False, Field field_name 2 False, Field field_qualifier 1 False, Field field_variables 8 False]),
     (4902, [Field field_directives 7 False, Field field_implements 5 False, Field field_method 8 False, Field field_name 2 False, Field field_qualifier 1 False]),
     (4907, [Field field_body 8 False, Field field_implements 5 False, Field field_method 7 False, Field field_name 2 False, Field field_qualifier 1 False]),
     (4912, [Field field_body 8 False, Field field_implements 5 False, Field field_method 6 False, Field field_name 2 False, Field field_qualifier 1 False]),
     (4917, [Field field_body 8 False, Field field_extends 5 False, Field field_implements 7 False, Field field_name 2 False, Field field_qualifier 1 False]),
     (4922, [Field field_extends 5 False, Field field_implements 7 False, Field field_name 2 False, Field field_qualifier 1 False, Field field_variables 8 False]),
     (4927, [Field field_directives 8 False, Field field_extends 5 False, Field field_implements 7 False, Field field_name 2 False, Field field_qualifier 1 False]),
     (4932, [Field field_extends 5 False, Field field_implements 7 False, Field field_method 8 False, Field field_name 2 False, Field field_qualifier 1 False]),
     (4937, [Field field_body 8 False, Field field_extends 5 False, Field field_name 2 False, Field field_qualifier 1 False, Field field_variables 6 False])]"

text \<open>Lines 13550 to 13697.\<close>

definition ts_field_map_entries_43 :: "(nat \<times> TSFieldMapEntry list) list" where
  "ts_field_map_entries_43 =
    [(4942, [Field field_body 8 False, Field field_extends 5 False, Field field_method 7 False, Field field_name 2 False, Field field_qualifier 1 False, Field field_variables 6 False]),
     (4948, [Field field_body 8 False, Field field_directives 6 False, Field field_extends 5 False, Field field_name 2 False, Field field_qualifier 1 False]),
     (4953, [Field field_body 8 False, Field field_directives 6 False, Field field_extends 5 False, Field field_name 2 False, Field field_qualifier 1 False, Field field_variables 7 False]),
     (4959, [Field field_directives 6 False, Field field_extends 5 False, Field field_method 8 False, Field field_name 2 False, Field field_qualifier 1 False, Field field_variables 7 False]),
     (4965, [Field field_body 8 False, Field field_directives 6 False, Field field_extends 5 False, Field field_method 7 False, Field field_name 2 False, Field field_qualifier 1 False]),
     (4971, [Field field_extends 5 False, Field field_implements 8 False, Field field_name 2 False, Field field_qualifier 1 False]),
     (4975, [Field field_body 8 False, Field field_extends 5 False, Field field_name 2 False, Field field_qualifier 1 False]),
     (4979, [Field field_body 8 False, Field field_extends 5 False, Field field_name 2 False, Field field_qualifier 1 False, Field field_variables 7 False]),
     (4984, [Field field_extends 5 False, Field field_method 8 False, Field field_name 2 False, Field field_qualifier 1 False, Field field_variables 7 False]),
     (4989, [Field field_body 8 False, Field field_directives 7 False, Field field_extends 5 False, Field field_name 2 False, Field field_qualifier 1 False]),
     (4994, [Field field_directives 7 False, Field field_extends 5 False, Field field_name 2 False, Field field_qualifier 1 False, Field field_variables 8 False]),
     (4999, [Field field_directives 7 False, Field field_extends 5 False, Field field_method 8 False, Field field_name 2 False, Field field_qualifier 1 False]),
     (5004, [Field field_extends 5 False, Field field_name 2 False, Field field_qualifier 1 False, Field field_variables 8 False]),
     (5008, [Field field_directives 8 False, Field field_extends 5 False, Field field_name 2 False, Field field_qualifier 1 False]),
     (5012, [Field field_extends 5 False, Field field_method 8 False, Field field_name 2 False, Field field_qualifier 1 False]),
     (5016, [Field field_body 8 False, Field field_extends 5 False, Field field_method 7 False, Field field_name 2 False, Field field_qualifier 1 False]),
     (5021, [Field field_body 8 False, Field field_extends 5 False, Field field_method 6 False, Field field_name 2 False, Field field_qualifier 1 False]),
     (5026, [Field field_body 8 False, Field field_directives 4 False, Field field_method 6 False, Field field_name 2 False, Field field_qualifier 1 False, Field field_variables 5 False]),
     (5032, [Field field_body 8 False, Field field_implements 6 False, Field field_name 2 False, Field field_qualifier 1 False]),
     (5036, [Field field_body 8 False, Field field_implements 6 False, Field field_name 2 False, Field field_qualifier 1 False, Field field_variables 7 False]),
     (5041, [Field field_implements 6 False, Field field_method 8 False, Field field_name 2 False, Field field_qualifier 1 False, Field field_variables 7 False]),
     (5046, [Field field_body 8 False, Field field_directives 7 False, Field field_implements 6 False, Field field_name 2 False, Field field_qualifier 1 False]),
     (5051, [Field field_directives 7 False, Field field_implements 6 False, Field field_name 2 False, Field field_qualifier 1 False, Field field_variables 8 False]),
     (5056, [Field field_directives 7 False, Field field_implements 6 False, Field field_method 8 False, Field field_name 2 False, Field field_qualifier 1 False]),
     (5061, [Field field_implements 6 False, Field field_name 2 False, Field field_qualifier 1 False, Field field_variables 8 False])]"

text \<open>Lines 13698 to 13842.\<close>

definition ts_field_map_entries_44 :: "(nat \<times> TSFieldMapEntry list) list" where
  "ts_field_map_entries_44 =
    [(5065, [Field field_directives 8 False, Field field_implements 6 False, Field field_name 2 False, Field field_qualifier 1 False]),
     (5069, [Field field_implements 6 False, Field field_method 8 False, Field field_name 2 False, Field field_qualifier 1 False]),
     (5073, [Field field_body 8 False, Field field_implements 6 False, Field field_method 7 False, Field field_name 2 False, Field field_qualifier 1 False]),
     (5078, [Field field_body 8 False, Field field_method 6 False, Field field_name 2 False, Field field_qualifier 1 False, Field field_variables 5 False]),
     (5083, [Field field_body 8 False, Field field_directives 5 False, Field field_name 2 False, Field field_qualifier 1 False, Field field_variables 6 False]),
     (5088, [Field field_body 8 False, Field field_directives 5 False, Field field_method 7 False, Field field_name 2 False, Field field_qualifier 1 False, Field field_variables 6 False]),
     (5094, [Field field_body 8 False, Field field_directives 5 False, Field field_method 6 False, Field field_name 2 False, Field field_qualifier 1 False]),
     (5099, [Field field_body 8 False, Field field_name 2 False, Field field_qualifier 1 False, Field field_variables 6 False]),
     (5103, [Field field_body 8 False, Field field_method 7 False, Field field_name 2 False, Field field_qualifier 1 False, Field field_variables 6 False]),
     (5108, [Field field_body 8 False, Field field_directives 6 False, Field field_name 2 False, Field field_qualifier 1 False]),
     (5112, [Field field_body 8 False, Field field_directives 6 False, Field field_name 2 False, Field field_qualifier 1 False, Field field_variables 7 False]),
     (5117, [Field field_directives 6 False, Field field_method 8 False, Field field_name 2 False, Field field_qualifier 1 False, Field field_variables 7 False]),
     (5122, [Field field_body 8 False, Field field_directives 6 False, Field field_method 7 False, Field field_name 2 False, Field field_qualifier 1 False]),
     (5127, [Field field_body 8 False, Field field_method 6 False, Field field_name 2 False, Field field_qualifier 1 False]),
     (5131, [Field field_body 8 False, Field field_directives 4 False, Field field_implements 3 False, Field field_method 6 False, Field field_name 1 False, Field field_variables 5 False]),
     (5137, [Field field_body 8 False, Field field_implements 3 False, Field field_method 6 False, Field field_name 1 False, Field field_variables 5 False]),
     (5142, [Field field_body 8 False, Field field_directives 5 False, Field field_implements 3 False, Field field_name 1 False, Field field_variables 6 False]),
     (5147, [Field field_body 8 False, Field field_directives 5 False, Field field_implements 3 False, Field field_method 7 False, Field field_name 1 False, Field field_variables 6 False]),
     (5153, [Field field_body 8 False, Field field_directives 5 False, Field field_implements 3 False, Field field_method 6 False, Field field_name 1 False]),
     (5158, [Field field_body 8 False, Field field_extends 3 False, Field field_implements 5 False, Field field_name 1 False, Field field_variables 6 False]),
     (5163, [Field field_body 8 False, Field field_extends 3 False, Field field_implements 5 False, Field field_method 7 False, Field field_name 1 False, Field field_variables 6 False]),
     (5169, [Field field_body 8 False, Field field_directives 6 False, Field field_extends 3 False, Field field_implements 5 False, Field field_name 1 False]),
     (5174, [Field field_body 8 False, Field field_directives 6 False, Field field_extends 3 False, Field field_implements 5 False, Field field_name 1 False, Field field_variables 7 False]),
     (5180, [Field field_directives 6 False, Field field_extends 3 False, Field field_implements 5 False, Field field_method 8 False, Field field_name 1 False, Field field_variables 7 False])]"

text \<open>Lines 13843 to 13989.\<close>

definition ts_field_map_entries_45 :: "(nat \<times> TSFieldMapEntry list) list" where
  "ts_field_map_entries_45 =
    [(5186, [Field field_body 8 False, Field field_directives 6 False, Field field_extends 3 False, Field field_implements 5 False, Field field_method 7 False, Field field_name 1 False]),
     (5192, [Field field_body 8 False, Field field_extends 3 False, Field field_implements 5 False, Field field_name 1 False]),
     (5196, [Field field_body 8 False, Field field_extends 3 False, Field field_implements 5 False, Field field_name 1 False, Field field_variables 7 False]),
     (5201, [Field field_extends 3 False, Field field_implements 5 False, Field field_method 8 False, Field field_name 1 False, Field field_variables 7 False]),
     (5206, [Field field_body 8 False, Field field_directives 7 False, Field field_extends 3 False, Field field_implements 5 False, Field field_name 1 False]),
     (5211, [Field field_directives 7 False, Field field_extends 3 False, Field field_implements 5 False, Field field_name 1 False, Field field_variables 8 False]),
     (5216, [Field field_directives 7 False, Field field_extends 3 False, Field field_implements 5 False, Field field_method 8 False, Field field_name 1 False]),
     (5221, [Field field_body 8 False, Field field_extends 3 False, Field field_implements 5 False, Field field_method 7 False, Field field_name 1 False]),
     (5226, [Field field_body 8 False, Field field_extends 3 False, Field field_implements 5 False, Field field_method 6 False, Field field_name 1 False]),
     (5231, [Field field_body 8 False, Field field_directives 4 False, Field field_extends 3 False, Field field_method 6 False, Field field_name 1 False, Field field_variables 5 False]),
     (5237, [Field field_body 8 False, Field field_extends 3 False, Field field_implements 6 False, Field field_name 1 False]),
     (5241, [Field field_body 8 False, Field field_extends 3 False, Field field_implements 6 False, Field field_name 1 False, Field field_variables 7 False]),
     (5246, [Field field_extends 3 False, Field field_implements 6 False, Field field_method 8 False, Field field_name 1 False, Field field_variables 7 False]),
     (5251, [Field field_body 8 False, Field field_directives 7 False, Field field_extends 3 False, Field field_implements 6 False, Field field_name 1 False]),
     (5256, [Field field_directives 7 False, Field field_extends 3 False, Field field_implements 6 False, Field field_name 1 False, Field field_variables 8 False]),
     (5261, [Field field_directives 7 False, Field field_extends 3 False, Field field_implements 6 False, Field field_method 8 False, Field field_name 1 False]),
     (5266, [Field field_extends 3 False, Field field_implements 6 False, Field field_name 1 False, Field field_variables 8 False]),
     (5270, [Field field_directives 8 False, Field field_extends 3 False, Field field_implements 6 False, Field field_name 1 False]),
     (5274, [Field field_extends 3 False, Field field_implements 6 False, Field field_method 8 False, Field field_name 1 False]),
     (5278, [Field field_body 8 False, Field field_extends 3 False, Field field_implements 6 False, Field field_method 7 False, Field field_name 1 False]),
     (5283, [Field field_body 8 False, Field field_extends 3 False, Field field_method 6 False, Field field_name 1 False, Field field_variables 5 False]),
     (5288, [Field field_body 8 False, Field field_directives 5 False, Field field_extends 3 False, Field field_name 1 False, Field field_variables 6 False]),
     (5293, [Field field_body 8 False, Field field_directives 5 False, Field field_extends 3 False, Field field_method 7 False, Field field_name 1 False, Field field_variables 6 False]),
     (5299, [Field field_body 8 False, Field field_directives 5 False, Field field_extends 3 False, Field field_method 6 False, Field field_name 1 False]),
     (5304, [Field field_body 8 False, Field field_extends 3 False, Field field_name 1 False, Field field_variables 6 False])]"

text \<open>Lines 13990 to 14138.\<close>

definition ts_field_map_entries_46 :: "(nat \<times> TSFieldMapEntry list) list" where
  "ts_field_map_entries_46 =
    [(5308, [Field field_body 8 False, Field field_extends 3 False, Field field_method 7 False, Field field_name 1 False, Field field_variables 6 False]),
     (5313, [Field field_body 8 False, Field field_directives 6 False, Field field_extends 3 False, Field field_name 1 False]),
     (5317, [Field field_body 8 False, Field field_directives 6 False, Field field_extends 3 False, Field field_name 1 False, Field field_variables 7 False]),
     (5322, [Field field_directives 6 False, Field field_extends 3 False, Field field_method 8 False, Field field_name 1 False, Field field_variables 7 False]),
     (5327, [Field field_body 8 False, Field field_directives 6 False, Field field_extends 3 False, Field field_method 7 False, Field field_name 1 False]),
     (5332, [Field field_body 8 False, Field field_extends 3 False, Field field_method 6 False, Field field_name 1 False]),
     (5336, [Field field_IQM 3 False, Field field_spec 6 False, Field field_variable_name 0 False]),
     (5339, [Field field_variable_name 3 True]),
     (5340, [Field field_body 8 False, Field field_implements 4 False, Field field_method 6 False, Field field_name 1 False, Field field_variables 5 False]),
     (5345, [Field field_body 8 False, Field field_directives 5 False, Field field_implements 4 False, Field field_name 1 False, Field field_variables 6 False]),
     (5350, [Field field_body 8 False, Field field_directives 5 False, Field field_implements 4 False, Field field_method 7 False, Field field_name 1 False, Field field_variables 6 False]),
     (5356, [Field field_body 8 False, Field field_directives 5 False, Field field_implements 4 False, Field field_method 6 False, Field field_name 1 False]),
     (5361, [Field field_body 8 False, Field field_implements 4 False, Field field_name 1 False, Field field_variables 6 False]),
     (5365, [Field field_body 8 False, Field field_implements 4 False, Field field_method 7 False, Field field_name 1 False, Field field_variables 6 False]),
     (5370, [Field field_body 8 False, Field field_directives 6 False, Field field_implements 4 False, Field field_name 1 False]),
     (5374, [Field field_body 8 False, Field field_directives 6 False, Field field_implements 4 False, Field field_name 1 False, Field field_variables 7 False]),
     (5379, [Field field_directives 6 False, Field field_implements 4 False, Field field_method 8 False, Field field_name 1 False, Field field_variables 7 False]),
     (5384, [Field field_body 8 False, Field field_directives 6 False, Field field_implements 4 False, Field field_method 7 False, Field field_name 1 False]),
     (5389, [Field field_body 8 False, Field field_implements 4 False, Field field_method 6 False, Field field_name 1 False]),
     (5393, [Field field_body 8 False, Field field_extends 4 False, Field field_implements 6 False, Field field_name 1 False]),
     (5397, [Field field_body 8 False, Field field_extends 4 False, Field field_implements 6 False, Field field_name 1 False, Field field_variables 7 False]),
     (5402, [Field field_extends 4 False, Field field_implements 6 False, Field field_method 8 False, Field field_name 1 False, Field field_variables 7 False]),
     (5407, [Field field_body 8 False, Field field_directives 7 False, Field field_extends 4 False, Field field_implements 6 False, Field field_name 1 False]),
     (5412, [Field field_directives 7 False, Field field_extends 4 False, Field field_implements 6 False, Field field_name 1 False, Field field_variables 8 False]),
     (5417, [Field field_directives 7 False, Field field_extends 4 False, Field field_implements 6 False, Field field_method 8 False, Field field_name 1 False]),
     (5422, [Field field_extends 4 False, Field field_implements 6 False, Field field_name 1 False, Field field_variables 8 False]),
     (5426, [Field field_directives 8 False, Field field_extends 4 False, Field field_implements 6 False, Field field_name 1 False])]"

text \<open>Lines 14139 to 14283.\<close>

definition ts_field_map_entries_47 :: "(nat \<times> TSFieldMapEntry list) list" where
  "ts_field_map_entries_47 =
    [(5430, [Field field_extends 4 False, Field field_implements 6 False, Field field_method 8 False, Field field_name 1 False]),
     (5434, [Field field_body 8 False, Field field_extends 4 False, Field field_implements 6 False, Field field_method 7 False, Field field_name 1 False]),
     (5439, [Field field_body 8 False, Field field_extends 4 False, Field field_method 6 False, Field field_name 1 False, Field field_variables 5 False]),
     (5444, [Field field_body 8 False, Field field_directives 5 False, Field field_extends 4 False, Field field_name 1 False, Field field_variables 6 False]),
     (5449, [Field field_body 8 False, Field field_directives 5 False, Field field_extends 4 False, Field field_method 7 False, Field field_name 1 False, Field field_variables 6 False]),
     (5455, [Field field_body 8 False, Field field_directives 5 False, Field field_extends 4 False, Field field_method 6 False, Field field_name 1 False]),
     (5460, [Field field_body 8 False, Field field_extends 4 False, Field field_implements 7 False, Field field_name 1 False]),
     (5464, [Field field_extends 4 False, Field field_implements 7 False, Field field_name 1 False, Field field_variables 8 False]),
     (5468, [Field field_directives 8 False, Field field_extends 4 False, Field field_implements 7 False, Field field_name 1 False]),
     (5472, [Field field_extends 4 False, Field field_implements 7 False, Field field_method 8 False, Field field_name 1 False]),
     (5476, [Field field_body 8 False, Field field_extends 4 False, Field field_name 1 False, Field field_variables 6 False]),
     (5480, [Field field_body 8 False, Field field_extends 4 False, Field field_method 7 False, Field field_name 1 False, Field field_variables 6 False]),
     (5485, [Field field_body 8 False, Field field_directives 6 False, Field field_extends 4 False, Field field_name 1 False]),
     (5489, [Field field_body 8 False, Field field_directives 6 False, Field field_extends 4 False, Field field_name 1 False, Field field_variables 7 False]),
     (5494, [Field field_directives 6 False, Field field_extends 4 False, Field field_method 8 False, Field field_name 1 False, Field field_variables 7 False]),
     (5499, [Field field_body 8 False, Field field_directives 6 False, Field field_extends 4 False, Field field_method 7 False, Field field_name 1 False]),
     (5504, [Field field_body 8 False, Field field_extends 4 False, Field field_name 1 False]),
     (5507, [Field field_body 8 False, Field field_extends 4 False, Field field_name 1 False, Field field_variables 7 False]),
     (5511, [Field field_extends 4 False, Field field_method 8 False, Field field_name 1 False, Field field_variables 7 False]),
     (5515, [Field field_body 8 False, Field field_directives 7 False, Field field_extends 4 False, Field field_name 1 False]),
     (5519, [Field field_directives 7 False, Field field_extends 4 False, Field field_name 1 False, Field field_variables 8 False]),
     (5523, [Field field_directives 7 False, Field field_extends 4 False, Field field_method 8 False, Field field_name 1 False]),
     (5527, [Field field_body 8 False, Field field_extends 4 False, Field field_method 7 False, Field field_name 1 False]),
     (5531, [Field field_body 8 False, Field field_extends 4 False, Field field_method 6 False, Field field_name 1 False]),
     (5535, [Field field_body 8 False, Field field_implements 5 False, Field field_name 1 False, Field field_variables 6 False]),
     (5539, [Field field_body 8 False, Field field_implements 5 False, Field field_method 7 False, Field field_name 1 False, Field field_variables 6 False]),
     (5544, [Field field_body 8 False, Field field_directives 6 False, Field field_implements 5 False, Field field_name 1 False])]"

text \<open>Lines 14284 to 14433.\<close>

definition ts_field_map_entries_48 :: "(nat \<times> TSFieldMapEntry list) list" where
  "ts_field_map_entries_48 =
    [(5548, [Field field_body 8 False, Field field_directives 6 False, Field field_implements 5 False, Field field_name 1 False, Field field_variables 7 False]),
     (5553, [Field field_directives 6 False, Field field_implements 5 False, Field field_method 8 False, Field field_name 1 False, Field field_variables 7 False]),
     (5558, [Field field_body 8 False, Field field_directives 6 False, Field field_implements 5 False, Field field_method 7 False, Field field_name 1 False]),
     (5563, [Field field_body 8 False, Field field_implements 5 False, Field field_name 1 False]),
     (5566, [Field field_body 8 False, Field field_implements 5 False, Field field_name 1 False, Field field_variables 7 False]),
     (5570, [Field field_implements 5 False, Field field_method 8 False, Field field_name 1 False, Field field_variables 7 False]),
     (5574, [Field field_body 8 False, Field field_directives 7 False, Field field_implements 5 False, Field field_name 1 False]),
     (5578, [Field field_directives 7 False, Field field_implements 5 False, Field field_name 1 False, Field field_variables 8 False]),
     (5582, [Field field_directives 7 False, Field field_implements 5 False, Field field_method 8 False, Field field_name 1 False]),
     (5586, [Field field_body 8 False, Field field_implements 5 False, Field field_method 7 False, Field field_name 1 False]),
     (5590, [Field field_body 8 False, Field field_implements 5 False, Field field_method 6 False, Field field_name 1 False]),
     (5594, [Field field_body 8 False, Field field_directives 4 False, Field field_method 6 False, Field field_name 1 False, Field field_variables 5 False]),
     (5599, [Field field_body 8 False, Field field_method 6 False, Field field_name 1 False, Field field_variables 5 False]),
     (5603, [Field field_body 8 False, Field field_directives 5 False, Field field_name 1 False, Field field_variables 6 False]),
     (5607, [Field field_body 8 False, Field field_directives 5 False, Field field_method 7 False, Field field_name 1 False, Field field_variables 6 False]),
     (5612, [Field field_body 8 False, Field field_directives 5 False, Field field_method 6 False, Field field_name 1 False]),
     (5616, [Field field_extends 4 False, Field field_implements 6 False, Field field_methods 8 False, Field field_modifier 1 False, Field field_name 2 False, Field field_variables 7 False]),
     (5622, [Field field_extends 4 False, Field field_implements 6 False, Field field_modifier 1 False, Field field_name 2 False, Field field_variables 8 False]),
     (5627, [Field field_extends 4 False, Field field_implements 6 False, Field field_methods 8 False, Field field_modifier 1 False, Field field_name 2 False]),
     (5632, [Field field_extends 4 False, Field field_implements 7 False, Field field_modifier 1 False, Field field_name 2 False, Field field_variables 8 False]),
     (5637, [Field field_extends 4 False, Field field_implements 7 False, Field field_methods 8 False, Field field_modifier 1 False, Field field_name 2 False]),
     (5642, [Field field_extends 4 False, Field field_methods 8 False, Field field_modifier 1 False, Field field_name 2 False, Field field_variables 7 False]),
     (5647, [Field field_implements 5 False, Field field_methods 8 False, Field field_modifier 1 False, Field field_name 2 False, Field field_variables 7 False]),
     (5652, [Field field_extends 5 False, Field field_implements 7 False, Field field_modifier 1 False, Field field_name 2 False, Field field_variables 8 False]),
     (5657, [Field field_extends 5 False, Field field_implements 7 False, Field field_methods 8 False, Field field_modifier 1 False, Field field_name 2 False]),
     (5662, [Field field_extends 5 False, Field field_implements 8 False, Field field_modifier 1 False, Field field_name 2 False]),
     (5666, [Field field_extends 5 False, Field field_methods 8 False, Field field_modifier 1 False, Field field_name 2 False, Field field_variables 7 False])]"

text \<open>Lines 14434 to 14579.\<close>

definition ts_field_map_entries_49 :: "(nat \<times> TSFieldMapEntry list) list" where
  "ts_field_map_entries_49 =
    [(5671, [Field field_extends 5 False, Field field_modifier 1 False, Field field_name 2 False, Field field_variables 8 False]),
     (5675, [Field field_extends 5 False, Field field_methods 8 False, Field field_modifier 1 False, Field field_name 2 False]),
     (5679, [Field field_implements 6 False, Field field_methods 8 False, Field field_modifier 1 False, Field field_name 2 False, Field field_variables 7 False]),
     (5684, [Field field_implements 6 False, Field field_modifier 1 False, Field field_name 2 False, Field field_variables 8 False]),
     (5688, [Field field_implements 6 False, Field field_methods 8 False, Field field_modifier 1 False, Field field_name 2 False]),
     (5692, [Field field_directives 3 False, Field field_implements 5 False, Field field_methods 8 False, Field field_modifier 1 False, Field field_name 2 False, Field field_variables 7 False]),
     (5698, [Field field_directives 3 False, Field field_extends 5 False, Field field_implements 7 False, Field field_modifier 1 False, Field field_name 2 False, Field field_variables 8 False]),
     (5704, [Field field_directives 3 False, Field field_extends 5 False, Field field_implements 7 False, Field field_methods 8 False, Field field_modifier 1 False, Field field_name 2 False]),
     (5710, [Field field_directives 3 False, Field field_extends 5 False, Field field_implements 8 False, Field field_modifier 1 False, Field field_name 2 False]),
     (5715, [Field field_directives 3 False, Field field_extends 5 False, Field field_methods 8 False, Field field_modifier 1 False, Field field_name 2 False, Field field_variables 7 False]),
     (5721, [Field field_directives 3 False, Field field_extends 5 False, Field field_modifier 1 False, Field field_name 2 False, Field field_variables 8 False]),
     (5726, [Field field_directives 3 False, Field field_extends 5 False, Field field_methods 8 False, Field field_modifier 1 False, Field field_name 2 False]),
     (5731, [Field field_directives 3 False, Field field_implements 6 False, Field field_methods 8 False, Field field_modifier 1 False, Field field_name 2 False, Field field_variables 7 False]),
     (5737, [Field field_directives 3 False, Field field_implements 6 False, Field field_modifier 1 False, Field field_name 2 False, Field field_variables 8 False]),
     (5742, [Field field_directives 3 False, Field field_implements 6 False, Field field_methods 8 False, Field field_modifier 1 False, Field field_name 2 False]),
     (5747, [Field field_directives 3 False, Field field_extends 6 False, Field field_implements 8 False, Field field_modifier 1 False, Field field_name 2 False]),
     (5752, [Field field_directives 3 False, Field field_extends 6 False, Field field_methods 8 False, Field field_modifier 1 False, Field field_name 2 False, Field field_variables 7 False]),
     (5758, [Field field_directives 3 False, Field field_extends 6 False, Field field_modifier 1 False, Field field_name 2 False, Field field_variables 8 False]),
     (5763, [Field field_directives 3 False, Field field_extends 6 False, Field field_methods 8 False, Field field_modifier 1 False, Field field_name 2 False]),
     (5768, [Field field_directives 3 False, Field field_implements 7 False, Field field_modifier 1 False, Field field_name 2 False, Field field_variables 8 False]),
     (5773, [Field field_directives 3 False, Field field_implements 7 False, Field field_methods 8 False, Field field_modifier 1 False, Field field_name 2 False]),
     (5778, [Field field_directives 3 False, Field field_methods 8 False, Field field_modifier 1 False, Field field_name 2 False, Field field_variables 7 False]),
     (5783, [Field field_extends 3 False, Field field_implements 5 False, Field field_methods 8 False, Field field_name 1 False, Field field_variables 7 False]),
     (5788, [Field field_extends 3 False, Field field_implements 6 False, Field field_methods 8 False, Field field_name 1 False, Field field_variables 7 False])]"

text \<open>Lines 14580 to 14726.\<close>

definition ts_field_map_entries_50 :: "(nat \<times> TSFieldMapEntry list) list" where
  "ts_field_map_entries_50 =
    [(5793, [Field field_extends 3 False, Field field_implements 6 False, Field field_methods 8 False, Field field_name 1 False]),
     (5797, [Field field_extends 4 False, Field field_implements 6 False, Field field_methods 8 False, Field field_name 1 False, Field field_variables 7 False]),
     (5802, [Field field_extends 4 False, Field field_implements 6 False, Field field_methods 8 False, Field field_name 1 False]),
     (5806, [Field field_extends 4 False, Field field_implements 7 False, Field field_methods 8 False, Field field_name 1 False]),
     (5810, [Field field_extends 4 False, Field field_methods 8 False, Field field_name 1 False, Field field_variables 7 False]),
     (5814, [Field field_implements 5 False, Field field_methods 8 False, Field field_name 1 False, Field field_variables 7 False]),
     (5818, [Field field_directives 2 False, Field field_extends 4 False, Field field_implements 6 False, Field field_methods 8 False, Field field_name 1 False, Field field_variables 7 False]),
     (5824, [Field field_directives 2 False, Field field_extends 4 False, Field field_implements 6 False, Field field_name 1 False, Field field_variables 8 False]),
     (5829, [Field field_directives 2 False, Field field_extends 4 False, Field field_implements 6 False, Field field_methods 8 False, Field field_name 1 False]),
     (5834, [Field field_directives 2 False, Field field_extends 4 False, Field field_implements 7 False, Field field_name 1 False, Field field_variables 8 False]),
     (5839, [Field field_directives 2 False, Field field_extends 4 False, Field field_implements 7 False, Field field_methods 8 False, Field field_name 1 False]),
     (5844, [Field field_directives 2 False, Field field_extends 4 False, Field field_methods 8 False, Field field_name 1 False, Field field_variables 7 False]),
     (5849, [Field field_directives 2 False, Field field_implements 5 False, Field field_methods 8 False, Field field_name 1 False, Field field_variables 7 False]),
     (5854, [Field field_directives 2 False, Field field_extends 5 False, Field field_implements 7 False, Field field_name 1 False, Field field_variables 8 False]),
     (5859, [Field field_directives 2 False, Field field_extends 5 False, Field field_implements 7 False, Field field_methods 8 False, Field field_name 1 False]),
     (5864, [Field field_directives 2 False, Field field_extends 5 False, Field field_implements 8 False, Field field_name 1 False]),
     (5868, [Field field_directives 2 False, Field field_extends 5 False, Field field_methods 8 False, Field field_name 1 False, Field field_variables 7 False]),
     (5873, [Field field_directives 2 False, Field field_extends 5 False, Field field_name 1 False, Field field_variables 8 False]),
     (5877, [Field field_directives 2 False, Field field_extends 5 False, Field field_methods 8 False, Field field_name 1 False]),
     (5881, [Field field_directives 2 False, Field field_implements 6 False, Field field_methods 8 False, Field field_name 1 False, Field field_variables 7 False]),
     (5886, [Field field_directives 2 False, Field field_implements 6 False, Field field_name 1 False, Field field_variables 8 False]),
     (5890, [Field field_directives 2 False, Field field_implements 6 False, Field field_methods 8 False, Field field_name 1 False]),
     (5894, [Field field_access 6 False, Field field_configuration_elements 7 False, Field field_name 2 False, Field field_retain 1 False, Field field_task 3 False, Field field_task 4 False]),
     (5900, [Field field_task 2 False]),
     (5901, [Field field_body 8 False, Field field_directives 6 False, Field field_name 3 False, Field field_pragmas 0 False, Field field_return_type 5 False, Field field_spec 2 False, Field field_variables 7 False]),
     (5908, [Field field_body 8 False, Field field_implements 5 False, Field field_name 3 False, Field field_pragmas 0 False, Field field_qualifier 2 False, Field field_variables 6 False])]"

text \<open>Lines 14727 to 14870.\<close>

definition ts_field_map_entries_51 :: "(nat \<times> TSFieldMapEntry list) list" where
  "ts_field_map_entries_51 =
    [(5914, [Field field_body 8 False, Field field_implements 5 False, Field field_method 7 False, Field field_name 3 False, Field field_pragmas 0 False, Field field_qualifier 2 False, Field field_variables 6 False]),
     (5921, [Field field_body 8 False, Field field_directives 6 False, Field field_implements 5 False, Field field_name 3 False, Field field_pragmas 0 False, Field field_qualifier 2 False]),
     (5927, [Field field_body 8 False, Field field_directives 6 False, Field field_implements 5 False, Field field_name 3 False, Field field_pragmas 0 False, Field field_qualifier 2 False, Field field_variables 7 False]),
     (5934, [Field field_directives 6 False, Field field_implements 5 False, Field field_method 8 False, Field field_name 3 False, Field field_pragmas 0 False, Field field_qualifier 2 False, Field field_variables 7 False]),
     (5941, [Field field_body 8 False, Field field_directives 6 False, Field field_implements 5 False, Field field_method 7 False, Field field_name 3 False, Field field_pragmas 0 False, Field field_qualifier 2 False]),
     (5948, [Field field_body 8 False, Field field_implements 5 False, Field field_name 3 False, Field field_pragmas 0 False, Field field_qualifier 2 False]),
     (5953, [Field field_body 8 False, Field field_implements 5 False, Field field_name 3 False, Field field_pragmas 0 False, Field field_qualifier 2 False, Field field_variables 7 False]),
     (5959, [Field field_implements 5 False, Field field_method 8 False, Field field_name 3 False, Field field_pragmas 0 False, Field field_qualifier 2 False, Field field_variables 7 False]),
     (5965, [Field field_body 8 False, Field field_directives 7 False, Field field_implements 5 False, Field field_name 3 False, Field field_pragmas 0 False, Field field_qualifier 2 False]),
     (5971, [Field field_directives 7 False, Field field_implements 5 False, Field field_name 3 False, Field field_pragmas 0 False, Field field_qualifier 2 False, Field field_variables 8 False]),
     (5977, [Field field_directives 7 False, Field field_implements 5 False, Field field_method 8 False, Field field_name 3 False, Field field_pragmas 0 False, Field field_qualifier 2 False]),
     (5983, [Field field_body 8 False, Field field_implements 5 False, Field field_method 7 False, Field field_name 3 False, Field field_pragmas 0 False, Field field_qualifier 2 False]),
     (5989, [Field field_body 8 False, Field field_implements 5 False, Field field_method 6 False, Field field_name 3 False, Field field_pragmas 0 False, Field field_qualifier 2 False]),
     (5995, [Field field_body 8 False, Field field_extends 5 False, Field field_implements 7 False, Field field_name 3 False, Field field_pragmas 0 False, Field field_qualifier 2 False]),
     (6001, [Field field_extends 5 False, Field field_implements 7 False, Field field_name 3 False, Field field_pragmas 0 False, Field field_qualifier 2 False, Field field_variables 8 False]),
     (6007, [Field field_directives 8 False, Field field_extends 5 False, Field field_implements 7 False, Field field_name 3 False, Field field_pragmas 0 False, Field field_qualifier 2 False]),
     (6013, [Field field_extends 5 False, Field field_implements 7 False, Field field_method 8 False, Field field_name 3 False, Field field_pragmas 0 False, Field field_qualifier 2 False]),
     (6019, [Field field_body 8 False, Field field_extends 5 False, Field field_name 3 False, Field field_pragmas 0 False, Field field_qualifier 2 False, Field field_variables 6 False]),
     (6025, [Field field_body 8 False, Field field_extends 5 False, Field field_method 7 False, Field field_name 3 False, Field field_pragmas 0 False, Field field_qualifier 2 False, Field field_variables 6 False]),
     (6032, [Field field_body 8 False, Field field_directives 6 False, Field field_extends 5 False, Field field_name 3 False, Field field_pragmas 0 False, Field field_qualifier 2 False])]"

text \<open>Lines 14871 to 15020.\<close>

definition ts_field_map_entries_52 :: "(nat \<times> TSFieldMapEntry list) list" where
  "ts_field_map_entries_52 =
    [(6038, [Field field_body 8 False, Field field_directives 6 False, Field field_extends 5 False, Field field_name 3 False, Field field_pragmas 0 False, Field field_qualifier 2 False, Field field_variables 7 False]),
     (6045, [Field field_directives 6 False, Field field_extends 5 False, Field field_method 8 False, Field field_name 3 False, Field field_pragmas 0 False, Field field_qualifier 2 False, Field field_variables 7 False]),
     (6052, [Field field_body 8 False, Field field_directives 6 False, Field field_extends 5 False, Field field_method 7 False, Field field_name 3 False, Field field_pragmas 0 False, Field field_qualifier 2 False]),
     (6059, [Field field_extends 5 False, Field field_implements 8 False, Field field_name 3 False, Field field_pragmas 0 False, Field field_qualifier 2 False]),
     (6064, [Field field_body 8 False, Field field_extends 5 False, Field field_name 3 False, Field field_pragmas 0 False, Field field_qualifier 2 False]),
     (6069, [Field field_body 8 False, Field field_extends 5 False, Field field_name 3 False, Field field_pragmas 0 False, Field field_qualifier 2 False, Field field_variables 7 False]),
     (6075, [Field field_extends 5 False, Field field_method 8 False, Field field_name 3 False, Field field_pragmas 0 False, Field field_qualifier 2 False, Field field_variables 7 False]),
     (6081, [Field field_body 8 False, Field field_directives 7 False, Field field_extends 5 False, Field field_name 3 False, Field field_pragmas 0 False, Field field_qualifier 2 False]),
     (6087, [Field field_directives 7 False, Field field_extends 5 False, Field field_name 3 False, Field field_pragmas 0 False, Field field_qualifier 2 False, Field field_variables 8 False]),
     (6093, [Field field_directives 7 False, Field field_extends 5 False, Field field_method 8 False, Field field_name 3 False, Field field_pragmas 0 False, Field field_qualifier 2 False]),
     (6099, [Field field_extends 5 False, Field field_name 3 False, Field field_pragmas 0 False, Field field_qualifier 2 False, Field field_variables 8 False]),
     (6104, [Field field_directives 8 False, Field field_extends 5 False, Field field_name 3 False, Field field_pragmas 0 False, Field field_qualifier 2 False]),
     (6109, [Field field_extends 5 False, Field field_method 8 False, Field field_name 3 False, Field field_pragmas 0 False, Field field_qualifier 2 False]),
     (6114, [Field field_body 8 False, Field field_extends 5 False, Field field_method 7 False, Field field_name 3 False, Field field_pragmas 0 False, Field field_qualifier 2 False]),
     (6120, [Field field_body 8 False, Field field_extends 5 False, Field field_method 6 False, Field field_name 3 False, Field field_pragmas 0 False, Field field_qualifier 2 False]),
     (6126, [Field field_body 8 False, Field field_implements 6 False, Field field_name 3 False, Field field_pragmas 0 False, Field field_qualifier 2 False]),
     (6131, [Field field_body 8 False, Field field_implements 6 False, Field field_name 3 False, Field field_pragmas 0 False, Field field_qualifier 2 False, Field field_variables 7 False]),
     (6137, [Field field_implements 6 False, Field field_method 8 False, Field field_name 3 False, Field field_pragmas 0 False, Field field_qualifier 2 False, Field field_variables 7 False]),
     (6143, [Field field_body 8 False, Field field_directives 7 False, Field field_implements 6 False, Field field_name 3 False, Field field_pragmas 0 False, Field field_qualifier 2 False]),
     (6149, [Field field_directives 7 False, Field field_implements 6 False, Field field_name 3 False, Field field_pragmas 0 False, Field field_qualifier 2 False, Field field_variables 8 False]),
     (6155, [Field field_directives 7 False, Field field_implements 6 False, Field field_method 8 False, Field field_name 3 False, Field field_pragmas 0 False, Field field_qualifier 2 False]),
     (6161, [Field field_implements 6 False, Field field_name 3 False, Field field_pragmas 0 False, Field field_qualifier 2 False, Field field_variables 8 False])]"

text \<open>Lines 15021 to 15170.\<close>

definition ts_field_map_entries_53 :: "(nat \<times> TSFieldMapEntry list) list" where
  "ts_field_map_entries_53 =
    [(6166, [Field field_directives 8 False, Field field_implements 6 False, Field field_name 3 False, Field field_pragmas 0 False, Field field_qualifier 2 False]),
     (6171, [Field field_implements 6 False, Field field_method 8 False, Field field_name 3 False, Field field_pragmas 0 False, Field field_qualifier 2 False]),
     (6176, [Field field_body 8 False, Field field_implements 6 False, Field field_method 7 False, Field field_name 3 False, Field field_pragmas 0 False, Field field_qualifier 2 False]),
     (6182, [Field field_extends 6 False, Field field_implements 8 False, Field field_name 3 False, Field field_pragmas 0 False, Field field_qualifier 2 False]),
     (6187, [Field field_body 8 False, Field field_extends 6 False, Field field_name 3 False, Field field_pragmas 0 False, Field field_qualifier 2 False]),
     (6192, [Field field_body 8 False, Field field_extends 6 False, Field field_name 3 False, Field field_pragmas 0 False, Field field_qualifier 2 False, Field field_variables 7 False]),
     (6198, [Field field_extends 6 False, Field field_method 8 False, Field field_name 3 False, Field field_pragmas 0 False, Field field_qualifier 2 False, Field field_variables 7 False]),
     (6204, [Field field_body 8 False, Field field_directives 7 False, Field field_extends 6 False, Field field_name 3 False, Field field_pragmas 0 False, Field field_qualifier 2 False]),
     (6210, [Field field_directives 7 False, Field field_extends 6 False, Field field_name 3 False, Field field_pragmas 0 False, Field field_qualifier 2 False, Field field_variables 8 False]),
     (6216, [Field field_directives 7 False, Field field_extends 6 False, Field field_method 8 False, Field field_name 3 False, Field field_pragmas 0 False, Field field_qualifier 2 False]),
     (6222, [Field field_extends 6 False, Field field_name 3 False, Field field_pragmas 0 False, Field field_qualifier 2 False, Field field_variables 8 False]),
     (6227, [Field field_directives 8 False, Field field_extends 6 False, Field field_name 3 False, Field field_pragmas 0 False, Field field_qualifier 2 False]),
     (6232, [Field field_extends 6 False, Field field_method 8 False, Field field_name 3 False, Field field_pragmas 0 False, Field field_qualifier 2 False]),
     (6237, [Field field_body 8 False, Field field_extends 6 False, Field field_method 7 False, Field field_name 3 False, Field field_pragmas 0 False, Field field_qualifier 2 False]),
     (6243, [Field field_body 8 False, Field field_method 6 False, Field field_name 3 False, Field field_pragmas 0 False, Field field_qualifier 2 False, Field field_variables 5 False]),
     (6249, [Field field_body 8 False, Field field_directives 5 False, Field field_name 3 False, Field field_pragmas 0 False, Field field_qualifier 2 False, Field field_variables 6 False]),
     (6255, [Field field_body 8 False, Field field_directives 5 False, Field field_method 7 False, Field field_name 3 False, Field field_pragmas 0 False, Field field_qualifier 2 False, Field field_variables 6 False]),
     (6262, [Field field_body 8 False, Field field_directives 5 False, Field field_method 6 False, Field field_name 3 False, Field field_pragmas 0 False, Field field_qualifier 2 False]),
     (6268, [Field field_body 8 False, Field field_implements 7 False, Field field_name 3 False, Field field_pragmas 0 False, Field field_qualifier 2 False]),
     (6273, [Field field_implements 7 False, Field field_name 3 False, Field field_pragmas 0 False, Field field_qualifier 2 False, Field field_variables 8 False]),
     (6278, [Field field_directives 8 False, Field field_implements 7 False, Field field_name 3 False, Field field_pragmas 0 False, Field field_qualifier 2 False]),
     (6283, [Field field_implements 7 False, Field field_method 8 False, Field field_name 3 False, Field field_pragmas 0 False, Field field_qualifier 2 False]),
     (6288, [Field field_body 8 False, Field field_name 3 False, Field field_pragmas 0 False, Field field_qualifier 2 False, Field field_variables 6 False])]"

text \<open>Lines 15171 to 15314.\<close>

definition ts_field_map_entries_54 :: "(nat \<times> TSFieldMapEntry list) list" where
  "ts_field_map_entries_54 =
    [(6293, [Field field_body 8 False, Field field_method 7 False, Field field_name 3 False, Field field_pragmas 0 False, Field field_qualifier 2 False, Field field_variables 6 False]),
     (6299, [Field field_body 8 False, Field field_directives 6 False, Field field_name 3 False, Field field_pragmas 0 False, Field field_qualifier 2 False]),
     (6304, [Field field_body 8 False, Field field_directives 6 False, Field field_name 3 False, Field field_pragmas 0 False, Field field_qualifier 2 False, Field field_variables 7 False]),
     (6310, [Field field_directives 6 False, Field field_method 8 False, Field field_name 3 False, Field field_pragmas 0 False, Field field_qualifier 2 False, Field field_variables 7 False]),
     (6316, [Field field_body 8 False, Field field_directives 6 False, Field field_method 7 False, Field field_name 3 False, Field field_pragmas 0 False, Field field_qualifier 2 False]),
     (6322, [Field field_body 8 False, Field field_name 3 False, Field field_pragmas 0 False, Field field_qualifier 2 False]),
     (6326, [Field field_body 8 False, Field field_name 3 False, Field field_pragmas 0 False, Field field_qualifier 2 False, Field field_variables 7 False]),
     (6331, [Field field_method 8 False, Field field_name 3 False, Field field_pragmas 0 False, Field field_qualifier 2 False, Field field_variables 7 False]),
     (6336, [Field field_body 8 False, Field field_directives 7 False, Field field_name 3 False, Field field_pragmas 0 False, Field field_qualifier 2 False]),
     (6341, [Field field_directives 7 False, Field field_name 3 False, Field field_pragmas 0 False, Field field_qualifier 2 False, Field field_variables 8 False]),
     (6346, [Field field_directives 7 False, Field field_method 8 False, Field field_name 3 False, Field field_pragmas 0 False, Field field_qualifier 2 False]),
     (6351, [Field field_body 8 False, Field field_method 7 False, Field field_name 3 False, Field field_pragmas 0 False, Field field_qualifier 2 False]),
     (6356, [Field field_body 8 False, Field field_method 6 False, Field field_name 3 False, Field field_pragmas 0 False, Field field_qualifier 2 False]),
     (6361, [Field field_body 8 False, Field field_directives 4 False, Field field_method 6 False, Field field_name 3 False, Field field_pragmas 0 False, Field field_qualifier 2 False, Field field_variables 5 False]),
     (6368, [Field field_body 8 False, Field field_implements 4 False, Field field_method 6 False, Field field_name 2 False, Field field_pragmas 0 False, Field field_variables 5 False]),
     (6374, [Field field_body 8 False, Field field_directives 5 False, Field field_implements 4 False, Field field_name 2 False, Field field_pragmas 0 False, Field field_variables 6 False]),
     (6380, [Field field_body 8 False, Field field_directives 5 False, Field field_implements 4 False, Field field_method 7 False, Field field_name 2 False, Field field_pragmas 0 False, Field field_variables 6 False]),
     (6387, [Field field_body 8 False, Field field_directives 5 False, Field field_implements 4 False, Field field_method 6 False, Field field_name 2 False, Field field_pragmas 0 False]),
     (6393, [Field field_body 8 False, Field field_implements 4 False, Field field_name 2 False, Field field_pragmas 0 False, Field field_variables 6 False]),
     (6398, [Field field_body 8 False, Field field_implements 4 False, Field field_method 7 False, Field field_name 2 False, Field field_pragmas 0 False, Field field_variables 6 False]),
     (6404, [Field field_body 8 False, Field field_directives 6 False, Field field_implements 4 False, Field field_name 2 False, Field field_pragmas 0 False]),
     (6409, [Field field_body 8 False, Field field_directives 6 False, Field field_implements 4 False, Field field_name 2 False, Field field_pragmas 0 False, Field field_variables 7 False])]"

text \<open>Lines 15315 to 15459.\<close>

definition ts_field_map_entries_55 :: "(nat \<times> TSFieldMapEntry list) list" where
  "ts_field_map_entries_55 =
    [(6415, [Field field_directives 6 False, Field field_implements 4 False, Field field_method 8 False, Field field_name 2 False, Field field_pragmas 0 False, Field field_variables 7 False]),
     (6421, [Field field_body 8 False, Field field_directives 6 False, Field field_implements 4 False, Field field_method 7 False, Field field_name 2 False, Field field_pragmas 0 False]),
     (6427, [Field field_body 8 False, Field field_implements 4 False, Field field_method 6 False, Field field_name 2 False, Field field_pragmas 0 False]),
     (6432, [Field field_body 8 False, Field field_extends 4 False, Field field_implements 6 False, Field field_name 2 False, Field field_pragmas 0 False]),
     (6437, [Field field_body 8 False, Field field_extends 4 False, Field field_implements 6 False, Field field_name 2 False, Field field_pragmas 0 False, Field field_variables 7 False]),
     (6443, [Field field_extends 4 False, Field field_implements 6 False, Field field_method 8 False, Field field_name 2 False, Field field_pragmas 0 False, Field field_variables 7 False]),
     (6449, [Field field_body 8 False, Field field_directives 7 False, Field field_extends 4 False, Field field_implements 6 False, Field field_name 2 False, Field field_pragmas 0 False]),
     (6455, [Field field_directives 7 False, Field field_extends 4 False, Field field_implements 6 False, Field field_name 2 False, Field field_pragmas 0 False, Field field_variables 8 False]),
     (6461, [Field field_directives 7 False, Field field_extends 4 False, Field field_implements 6 False, Field field_method 8 False, Field field_name 2 False, Field field_pragmas 0 False]),
     (6467, [Field field_extends 4 False, Field field_implements 6 False, Field field_name 2 False, Field field_pragmas 0 False, Field field_variables 8 False]),
     (6472, [Field field_directives 8 False, Field field_extends 4 False, Field field_implements 6 False, Field field_name 2 False, Field field_pragmas 0 False]),
     (6477, [Field field_extends 4 False, Field field_implements 6 False, Field field_method 8 False, Field field_name 2 False, Field field_pragmas 0 False]),
     (6482, [Field field_body 8 False, Field field_extends 4 False, Field field_implements 6 False, Field field_method 7 False, Field field_name 2 False, Field field_pragmas 0 False]),
     (6488, [Field field_body 8 False, Field field_extends 4 False, Field field_method 6 False, Field field_name 2 False, Field field_pragmas 0 False, Field field_variables 5 False]),
     (6494, [Field field_body 8 False, Field field_directives 5 False, Field field_extends 4 False, Field field_name 2 False, Field field_pragmas 0 False, Field field_variables 6 False]),
     (6500, [Field field_body 8 False, Field field_directives 5 False, Field field_extends 4 False, Field field_method 7 False, Field field_name 2 False, Field field_pragmas 0 False, Field field_variables 6 False]),
     (6507, [Field field_body 8 False, Field field_directives 5 False, Field field_extends 4 False, Field field_method 6 False, Field field_name 2 False, Field field_pragmas 0 False]),
     (6513, [Field field_body 8 False, Field field_extends 4 False, Field field_implements 7 False, Field field_name 2 False, Field field_pragmas 0 False]),
     (6518, [Field field_extends 4 False, Field field_implements 7 False, Field field_name 2 False, Field field_pragmas 0 False, Field field_variables 8 False]),
     (6523, [Field field_directives 8 False, Field field_extends 4 False, Field field_implements 7 False, Field field_name 2 False, Field field_pragmas 0 False]),
     (6528, [Field field_extends 4 False, Field field_implements 7 False, Field field_method 8 False, Field field_name 2 False, Field field_pragmas 0 False]),
     (6533, [Field field_body 8 False, Field field_extends 4 False, Field field_name 2 False, Field field_pragmas 0 False, Field field_variables 6 False])]"

text \<open>Lines 15460 to 15609.\<close>

definition ts_field_map_entries_56 :: "(nat \<times> TSFieldMapEntry list) list" where
  "ts_field_map_entries_56 =
    [(6538, [Field field_body 8 False, Field field_extends 4 False, Field field_method 7 False, Field field_name 2 False, Field field_pragmas 0 False, Field field_variables 6 False]),
     (6544, [Field field_body 8 False, Field field_directives 6 False, Field field_extends 4 False, Field field_name 2 False, Field field_pragmas 0 False]),
     (6549, [Field field_body 8 False, Field field_directives 6 False, Field field_extends 4 False, Field field_name 2 False, Field field_pragmas 0 False, Field field_variables 7 False]),
     (6555, [Field field_directives 6 False, Field field_extends 4 False, Field field_method 8 False, Field field_name 2 False, Field field_pragmas 0 False, Field field_variables 7 False]),
     (6561, [Field field_body 8 False, Field field_directives 6 False, Field field_extends 4 False, Field field_method 7 False, Field field_name 2 False, Field field_pragmas 0 False]),
     (6567, [Field field_body 8 False, Field field_extends 4 False, Field field_name 2 False, Field field_pragmas 0 False]),
     (6571, [Field field_body 8 False, Field field_extends 4 False, Field field_name 2 False, Field field_pragmas 0 False, Field field_variables 7 False]),
     (6576, [Field field_extends 4 False, Field field_method 8 False, Field field_name 2 False, Field field_pragmas 0 False, Field field_variables 7 False]),
     (6581, [Field field_body 8 False, Field field_directives 7 False, Field field_extends 4 False, Field field_name 2 False, Field field_pragmas 0 False]),
     (6586, [Field field_directives 7 False, Field field_extends 4 False, Field field_name 2 False, Field field_pragmas 0 False, Field field_variables 8 False]),
     (6591, [Field field_directives 7 False, Field field_extends 4 False, Field field_method 8 False, Field field_name 2 False, Field field_pragmas 0 False]),
     (6596, [Field field_body 8 False, Field field_extends 4 False, Field field_method 7 False, Field field_name 2 False, Field field_pragmas 0 False]),
     (6601, [Field field_body 8 False, Field field_extends 4 False, Field field_method 6 False, Field field_name 2 False, Field field_pragmas 0 False]),
     (6606, [Field field_body 8 False, Field field_implements 5 False, Field field_name 2 False, Field field_pragmas 0 False, Field field_variables 6 False]),
     (6611, [Field field_body 8 False, Field field_implements 5 False, Field field_method 7 False, Field field_name 2 False, Field field_pragmas 0 False, Field field_variables 6 False]),
     (6617, [Field field_body 8 False, Field field_directives 6 False, Field field_implements 5 False, Field field_name 2 False, Field field_pragmas 0 False]),
     (6622, [Field field_body 8 False, Field field_directives 6 False, Field field_implements 5 False, Field field_name 2 False, Field field_pragmas 0 False, Field field_variables 7 False]),
     (6628, [Field field_directives 6 False, Field field_implements 5 False, Field field_method 8 False, Field field_name 2 False, Field field_pragmas 0 False, Field field_variables 7 False]),
     (6634, [Field field_body 8 False, Field field_directives 6 False, Field field_implements 5 False, Field field_method 7 False, Field field_name 2 False, Field field_pragmas 0 False]),
     (6640, [Field field_body 8 False, Field field_implements 5 False, Field field_name 2 False, Field field_pragmas 0 False]),
     (6644, [Field field_body 8 False, Field field_implements 5 False, Field field_name 2 False, Field field_pragmas 0 False, Field field_variables 7 False]),
     (6649, [Field field_implements 5 False, Field field_method 8 False, Field field_name 2 False, Field field_pragmas 0 False, Field field_variables 7 False]),
     (6654, [Field field_body 8 False, Field field_directives 7 False, Field field_implements 5 False, Field field_name 2 False, Field field_pragmas 0 False]),
     (6659, [Field field_directives 7 False, Field field_implements 5 False, Field field_name 2 False, Field field_pragmas 0 False, Field field_variables 8 False])]"

text \<open>Lines 15610 to 15758.\<close>

definition ts_field_map_entries_57 :: "(nat \<times> TSFieldMapEntry list) list" where
  "ts_field_map_entries_57 =
    [(6664, [Field field_directives 7 False, Field field_implements 5 False, Field field_method 8 False, Field field_name 2 False, Field field_pragmas 0 False]),
     (6669, [Field field_body 8 False, Field field_implements 5 False, Field field_method 7 False, Field field_name 2 False, Field field_pragmas 0 False]),
     (6674, [Field field_body 8 False, Field field_implements 5 False, Field field_method 6 False, Field field_name 2 False, Field field_pragmas 0 False]),
     (6679, [Field field_body 8 False, Field field_extends 5 False, Field field_implements 7 False, Field field_name 2 False, Field field_pragmas 0 False]),
     (6684, [Field field_extends 5 False, Field field_implements 7 False, Field field_name 2 False, Field field_pragmas 0 False, Field field_variables 8 False]),
     (6689, [Field field_directives 8 False, Field field_extends 5 False, Field field_implements 7 False, Field field_name 2 False, Field field_pragmas 0 False]),
     (6694, [Field field_extends 5 False, Field field_implements 7 False, Field field_method 8 False, Field field_name 2 False, Field field_pragmas 0 False]),
     (6699, [Field field_body 8 False, Field field_extends 5 False, Field field_name 2 False, Field field_pragmas 0 False, Field field_variables 6 False]),
     (6704, [Field field_body 8 False, Field field_extends 5 False, Field field_method 7 False, Field field_name 2 False, Field field_pragmas 0 False, Field field_variables 6 False]),
     (6710, [Field field_body 8 False, Field field_directives 6 False, Field field_extends 5 False, Field field_name 2 False, Field field_pragmas 0 False]),
     (6715, [Field field_body 8 False, Field field_directives 6 False, Field field_extends 5 False, Field field_name 2 False, Field field_pragmas 0 False, Field field_variables 7 False]),
     (6721, [Field field_directives 6 False, Field field_extends 5 False, Field field_method 8 False, Field field_name 2 False, Field field_pragmas 0 False, Field field_variables 7 False]),
     (6727, [Field field_body 8 False, Field field_directives 6 False, Field field_extends 5 False, Field field_method 7 False, Field field_name 2 False, Field field_pragmas 0 False]),
     (6733, [Field field_extends 5 False, Field field_implements 8 False, Field field_name 2 False, Field field_pragmas 0 False]),
     (6737, [Field field_body 8 False, Field field_extends 5 False, Field field_name 2 False, Field field_pragmas 0 False]),
     (6741, [Field field_body 8 False, Field field_extends 5 False, Field field_name 2 False, Field field_pragmas 0 False, Field field_variables 7 False]),
     (6746, [Field field_extends 5 False, Field field_method 8 False, Field field_name 2 False, Field field_pragmas 0 False, Field field_variables 7 False]),
     (6751, [Field field_body 8 False, Field field_directives 7 False, Field field_extends 5 False, Field field_name 2 False, Field field_pragmas 0 False]),
     (6756, [Field field_directives 7 False, Field field_extends 5 False, Field field_name 2 False, Field field_pragmas 0 False, Field field_variables 8 False]),
     (6761, [Field field_directives 7 False, Field field_extends 5 False, Field field_method 8 False, Field field_name 2 False, Field field_pragmas 0 False]),
     (6766, [Field field_extends 5 False, Field field_name 2 False, Field field_pragmas 0 False, Field field_variables 8 False]),
     (6770, [Field field_directives 8 False, Field field_extends 5 False, Field field_name 2 False, Field field_pragmas 0 False]),
     (6774, [Field field_extends 5 False, Field field_method 8 False, Field field_name 2 False, Field field_pragmas 0 False]),
     (6778, [Field field_body 8 False, Field field_extends 5 False, Field field_method 7 False, Field field_name 2 False, Field field_pragmas 0 False]),
     (6783, [Field field_body 8 False, Field field_extends 5 False, Field field_method 6 False, Field field_name 2 False, Field field_pragmas 0 False])]"

text \<open>Lines 15759 to 15905.\<close>

definition ts_field_map_entries_58 :: "(nat \<times> TSFieldMapEntry list) list" where
  "ts_field_map_entries_58 =
    [(6788, [Field field_body 8 False, Field field_directives 4 False, Field field_method 6 False, Field field_name 2 False, Field field_pragmas 0 False, Field field_variables 5 False]),
     (6794, [Field field_body 8 False, Field field_implements 6 False, Field field_name 2 False, Field field_pragmas 0 False]),
     (6798, [Field field_body 8 False, Field field_implements 6 False, Field field_name 2 False, Field field_pragmas 0 False, Field field_variables 7 False]),
     (6803, [Field field_implements 6 False, Field field_method 8 False, Field field_name 2 False, Field field_pragmas 0 False, Field field_variables 7 False]),
     (6808, [Field field_body 8 False, Field field_directives 7 False, Field field_implements 6 False, Field field_name 2 False, Field field_pragmas 0 False]),
     (6813, [Field field_directives 7 False, Field field_implements 6 False, Field field_name 2 False, Field field_pragmas 0 False, Field field_variables 8 False]),
     (6818, [Field field_directives 7 False, Field field_implements 6 False, Field field_method 8 False, Field field_name 2 False, Field field_pragmas 0 False]),
     (6823, [Field field_implements 6 False, Field field_name 2 False, Field field_pragmas 0 False, Field field_variables 8 False]),
     (6827, [Field field_directives 8 False, Field field_implements 6 False, Field field_name 2 False, Field field_pragmas 0 False]),
     (6831, [Field field_implements 6 False, Field field_method 8 False, Field field_name 2 False, Field field_pragmas 0 False]),
     (6835, [Field field_body 8 False, Field field_implements 6 False, Field field_method 7 False, Field field_name 2 False, Field field_pragmas 0 False]),
     (6840, [Field field_body 8 False, Field field_method 6 False, Field field_name 2 False, Field field_pragmas 0 False, Field field_variables 5 False]),
     (6845, [Field field_body 8 False, Field field_directives 5 False, Field field_name 2 False, Field field_pragmas 0 False, Field field_variables 6 False]),
     (6850, [Field field_body 8 False, Field field_directives 5 False, Field field_method 7 False, Field field_name 2 False, Field field_pragmas 0 False, Field field_variables 6 False]),
     (6856, [Field field_body 8 False, Field field_directives 5 False, Field field_method 6 False, Field field_name 2 False, Field field_pragmas 0 False]),
     (6861, [Field field_body 8 False, Field field_name 2 False, Field field_pragmas 0 False, Field field_variables 6 False]),
     (6865, [Field field_body 8 False, Field field_method 7 False, Field field_name 2 False, Field field_pragmas 0 False, Field field_variables 6 False]),
     (6870, [Field field_body 8 False, Field field_directives 6 False, Field field_name 2 False, Field field_pragmas 0 False]),
     (6874, [Field field_body 8 False, Field field_directives 6 False, Field field_name 2 False, Field field_pragmas 0 False, Field field_variables 7 False]),
     (6879, [Field field_directives 6 False, Field field_method 8 False, Field field_name 2 False, Field field_pragmas 0 False, Field field_variables 7 False]),
     (6884, [Field field_body 8 False, Field field_directives 6 False, Field field_method 7 False, Field field_name 2 False, Field field_pragmas 0 False]),
     (6889, [Field field_body 8 False, Field field_method 6 False, Field field_name 2 False, Field field_pragmas 0 False]),
     (6893, [Field field_index 1 False, Field field_value 4 False]),
     (6895, [Field field_dimensions 3 False, Field field_type 6 False]),
     (6897, [Field field__override 2 False, Field field_body 7 False, Field field_modifier 1 False, Field field_name 3 False, Field field_return_type 5 False, Field field_variables 6 False]),
     (6903, [Field field__override 3 False, Field field_access 1 False, Field field_body 7 False, Field field_modifier 2 False, Field field_name 4 False, Field field_return_type 6 False])]"

text \<open>Lines 15906 to 16053.\<close>

definition ts_field_map_entries_59 :: "(nat \<times> TSFieldMapEntry list) list" where
  "ts_field_map_entries_59 =
    [(6909, [Field field__override 3 False, Field field_access 1 False, Field field_modifier 2 False, Field field_name 4 False, Field field_return_type 6 False, Field field_variables 7 False]),
     (6915, [Field field_access 1 False, Field field_body 7 False, Field field_modifier 2 False, Field field_name 3 False, Field field_return_type 5 False, Field field_variables 6 False]),
     (6921, [Field field__override 2 False, Field field_access 1 False, Field field_body 7 False, Field field_name 3 False, Field field_return_type 5 False, Field field_variables 6 False]),
     (6927, [Field field_access 6 False, Field field_direction 7 False, Field field_name 0 False, Field field_variable 2 False]),
     (6931, [Field field__override 3 False, Field field_body 7 False, Field field_modifier 2 False, Field field_name 4 False, Field field_pragmas 0 False, Field field_return_type 6 False]),
     (6937, [Field field__override 3 False, Field field_modifier 2 False, Field field_name 4 False, Field field_pragmas 0 False, Field field_return_type 6 False, Field field_variables 7 False]),
     (6943, [Field field_body 7 False, Field field_modifier 2 False, Field field_name 3 False, Field field_pragmas 0 False, Field field_return_type 5 False, Field field_variables 6 False]),
     (6949, [Field field__override 2 False, Field field_body 7 False, Field field_name 3 False, Field field_pragmas 0 False, Field field_return_type 5 False, Field field_variables 6 False]),
     (6955, [Field field__override 4 False, Field field_access 2 False, Field field_modifier 3 False, Field field_name 5 False, Field field_pragmas 0 False, Field field_return_type 7 False]),
     (6961, [Field field__override 4 False, Field field_access 2 False, Field field_body 7 False, Field field_modifier 3 False, Field field_name 5 False, Field field_pragmas 0 False, Field field_variables 6 False]),
     (6968, [Field field_access 2 False, Field field_body 7 False, Field field_modifier 3 False, Field field_name 4 False, Field field_pragmas 0 False, Field field_return_type 6 False]),
     (6974, [Field field_access 2 False, Field field_modifier 3 False, Field field_name 4 False, Field field_pragmas 0 False, Field field_return_type 6 False, Field field_variables 7 False]),
     (6980, [Field field__override 3 False, Field field_access 2 False, Field field_body 7 False, Field field_name 4 False, Field field_pragmas 0 False, Field field_return_type 6 False]),
     (6986, [Field field__override 3 False, Field field_access 2 False, Field field_name 4 False, Field field_pragmas 0 False, Field field_return_type 6 False, Field field_variables 7 False]),
     (6992, [Field field_access 2 False, Field field_body 7 False, Field field_name 3 False, Field field_pragmas 0 False, Field field_return_type 5 False, Field field_variables 6 False]),
     (6998, [Field field_body 9 False, Field field_directives 5 False, Field field_implements 4 False, Field field_method 7 False, Field field_name 2 False, Field field_qualifier 1 False, Field field_variables 6 False]),
     (7005, [Field field_body 9 False, Field field_implements 4 False, Field field_method 7 False, Field field_name 2 False, Field field_qualifier 1 False, Field field_variables 6 False]),
     (7011, [Field field_body 9 False, Field field_directives 6 False, Field field_implements 4 False, Field field_name 2 False, Field field_qualifier 1 False, Field field_variables 7 False]),
     (7017, [Field field_body 9 False, Field field_directives 6 False, Field field_implements 4 False, Field field_method 8 False, Field field_name 2 False, Field field_qualifier 1 False, Field field_variables 7 False]),
     (7024, [Field field_body 9 False, Field field_directives 6 False, Field field_implements 4 False, Field field_method 7 False, Field field_name 2 False, Field field_qualifier 1 False]),
     (7030, [Field field_body 9 False, Field field_extends 4 False, Field field_implements 6 False, Field field_name 2 False, Field field_qualifier 1 False, Field field_variables 7 False])]"

text \<open>Lines 16054 to 16202.\<close>

definition ts_field_map_entries_60 :: "(nat \<times> TSFieldMapEntry list) list" where
  "ts_field_map_entries_60 =
    [(7036, [Field field_body 9 False, Field field_extends 4 False, Field field_implements 6 False, Field field_method 8 False, Field field_name 2 False, Field field_qualifier 1 False, Field field_variables 7 False]),
     (7043, [Field field_body 9 False, Field field_directives 7 False, Field field_extends 4 False, Field field_implements 6 False, Field field_name 2 False, Field field_qualifier 1 False]),
     (7049, [Field field_body 9 False, Field field_directives 7 False, Field field_extends 4 False, Field field_implements 6 False, Field field_name 2 False, Field field_qualifier 1 False, Field field_variables 8 False]),
     (7056, [Field field_directives 7 False, Field field_extends 4 False, Field field_implements 6 False, Field field_method 9 False, Field field_name 2 False, Field field_qualifier 1 False, Field field_variables 8 False]),
     (7063, [Field field_body 9 False, Field field_directives 7 False, Field field_extends 4 False, Field field_implements 6 False, Field field_method 8 False, Field field_name 2 False, Field field_qualifier 1 False]),
     (7070, [Field field_body 9 False, Field field_extends 4 False, Field field_implements 6 False, Field field_name 2 False, Field field_qualifier 1 False]),
     (7075, [Field field_body 9 False, Field field_extends 4 False, Field field_implements 6 False, Field field_name 2 False, Field field_qualifier 1 False, Field field_variables 8 False]),
     (7081, [Field field_extends 4 False, Field field_implements 6 False, Field field_method 9 False, Field field_name 2 False, Field field_qualifier 1 False, Field field_variables 8 False]),
     (7087, [Field field_body 9 False, Field field_directives 8 False, Field field_extends 4 False, Field field_implements 6 False, Field field_name 2 False, Field field_qualifier 1 False]),
     (7093, [Field field_directives 8 False, Field field_extends 4 False, Field field_implements 6 False, Field field_name 2 False, Field field_qualifier 1 False, Field field_variables 9 False]),
     (7099, [Field field_directives 8 False, Field field_extends 4 False, Field field_implements 6 False, Field field_method 9 False, Field field_name 2 False, Field field_qualifier 1 False]),
     (7105, [Field field_body 9 False, Field field_extends 4 False, Field field_implements 6 False, Field field_method 8 False, Field field_name 2 False, Field field_qualifier 1 False]),
     (7111, [Field field_body 9 False, Field field_extends 4 False, Field field_implements 6 False, Field field_method 7 False, Field field_name 2 False, Field field_qualifier 1 False]),
     (7117, [Field field_body 9 False, Field field_directives 5 False, Field field_extends 4 False, Field field_method 7 False, Field field_name 2 False, Field field_qualifier 1 False, Field field_variables 6 False]),
     (7124, [Field field_body 9 False, Field field_extends 4 False, Field field_implements 7 False, Field field_name 2 False, Field field_qualifier 1 False]),
     (7129, [Field field_body 9 False, Field field_extends 4 False, Field field_implements 7 False, Field field_name 2 False, Field field_qualifier 1 False, Field field_variables 8 False]),
     (7135, [Field field_extends 4 False, Field field_implements 7 False, Field field_method 9 False, Field field_name 2 False, Field field_qualifier 1 False, Field field_variables 8 False]),
     (7141, [Field field_body 9 False, Field field_directives 8 False, Field field_extends 4 False, Field field_implements 7 False, Field field_name 2 False, Field field_qualifier 1 False]),
     (7147, [Field field_directives 8 False, Field field_extends 4 False, Field field_implements 7 False, Field field_name 2 False, Field field_qualifier 1 False, Field field_variables 9 False]),
     (7153, [Field field_directives 8 False, Field field_extends 4 False, Field field_implements 7 False, Field field_method 9 False, Field field_name 2 False, Field field_qualifier 1 False]),
     (7159, [Field field_extends 4 False, Field field_implements 7 False, Field field_name 2 False, Field field_qualifier 1 False, Field field_variables 9 False])]"

text \<open>Lines 16203 to 16351.\<close>

definition ts_field_map_entries_61 :: "(nat \<times> TSFieldMapEntry list) list" where
  "ts_field_map_entries_61 =
    [(7164, [Field field_directives 9 False, Field field_extends 4 False, Field field_implements 7 False, Field field_name 2 False, Field field_qualifier 1 False]),
     (7169, [Field field_extends 4 False, Field field_implements 7 False, Field field_method 9 False, Field field_name 2 False, Field field_qualifier 1 False]),
     (7174, [Field field_body 9 False, Field field_extends 4 False, Field field_implements 7 False, Field field_method 8 False, Field field_name 2 False, Field field_qualifier 1 False]),
     (7180, [Field field_body 9 False, Field field_extends 4 False, Field field_method 7 False, Field field_name 2 False, Field field_qualifier 1 False, Field field_variables 6 False]),
     (7186, [Field field_body 9 False, Field field_directives 6 False, Field field_extends 4 False, Field field_name 2 False, Field field_qualifier 1 False, Field field_variables 7 False]),
     (7192, [Field field_body 9 False, Field field_directives 6 False, Field field_extends 4 False, Field field_method 8 False, Field field_name 2 False, Field field_qualifier 1 False, Field field_variables 7 False]),
     (7199, [Field field_body 9 False, Field field_directives 6 False, Field field_extends 4 False, Field field_method 7 False, Field field_name 2 False, Field field_qualifier 1 False]),
     (7205, [Field field_body 9 False, Field field_extends 4 False, Field field_name 2 False, Field field_qualifier 1 False, Field field_variables 7 False]),
     (7210, [Field field_body 9 False, Field field_extends 4 False, Field field_method 8 False, Field field_name 2 False, Field field_qualifier 1 False, Field field_variables 7 False]),
     (7216, [Field field_body 9 False, Field field_directives 7 False, Field field_extends 4 False, Field field_name 2 False, Field field_qualifier 1 False]),
     (7221, [Field field_body 9 False, Field field_directives 7 False, Field field_extends 4 False, Field field_name 2 False, Field field_qualifier 1 False, Field field_variables 8 False]),
     (7227, [Field field_directives 7 False, Field field_extends 4 False, Field field_method 9 False, Field field_name 2 False, Field field_qualifier 1 False, Field field_variables 8 False]),
     (7233, [Field field_body 9 False, Field field_directives 7 False, Field field_extends 4 False, Field field_method 8 False, Field field_name 2 False, Field field_qualifier 1 False]),
     (7239, [Field field_body 9 False, Field field_extends 4 False, Field field_method 7 False, Field field_name 2 False, Field field_qualifier 1 False]),
     (7244, [Field field_body 9 False, Field field_implements 5 False, Field field_method 7 False, Field field_name 2 False, Field field_qualifier 1 False, Field field_variables 6 False]),
     (7250, [Field field_body 9 False, Field field_directives 6 False, Field field_implements 5 False, Field field_name 2 False, Field field_qualifier 1 False, Field field_variables 7 False]),
     (7256, [Field field_body 9 False, Field field_directives 6 False, Field field_implements 5 False, Field field_method 8 False, Field field_name 2 False, Field field_qualifier 1 False, Field field_variables 7 False]),
     (7263, [Field field_body 9 False, Field field_directives 6 False, Field field_implements 5 False, Field field_method 7 False, Field field_name 2 False, Field field_qualifier 1 False]),
     (7269, [Field field_body 9 False, Field field_implements 5 False, Field field_name 2 False, Field field_qualifier 1 False, Field field_variables 7 False]),
     (7274, [Field field_body 9 False, Field field_implements 5 False, Field field_method 8 False, Field field_name 2 False, Field field_qualifier 1 False, Field field_variables 7 False]),
     (7280, [Field field_body 9 False, Field field_directives 7 False, Field field_implements 5 False, Field field_name 2 False, Field field_qualifier 1 False]),
     (7285, [Field field_body 9 False, Field field_directives 7 False, Field field_implements 5 False, Field field_name 2 False, Field field_qualifier 1 False, Field field_variables 8 False])]"

text \<open>Lines 16352 to 16496.\<close>

definition ts_field_map_entries_62 :: "(nat \<times> TSFieldMapEntry list) list" where
  "ts_field_map_entries_62 =
    [(7291, [Field field_directives 7 False, Field field_implements 5 False, Field field_method 9 False, Field field_name 2 False, Field field_qualifier 1 False, Field field_variables 8 False]),
     (7297, [Field field_body 9 False, Field field_directives 7 False, Field field_implements 5 False, Field field_method 8 False, Field field_name 2 False, Field field_qualifier 1 False]),
     (7303, [Field field_body 9 False, Field field_implements 5 False, Field field_method 7 False, Field field_name 2 False, Field field_qualifier 1 False]),
     (7308, [Field field_body 9 False, Field field_extends 5 False, Field field_implements 7 False, Field field_name 2 False, Field field_qualifier 1 False]),
     (7313, [Field field_body 9 False, Field field_extends 5 False, Field field_implements 7 False, Field field_name 2 False, Field field_qualifier 1 False, Field field_variables 8 False]),
     (7319, [Field field_extends 5 False, Field field_implements 7 False, Field field_method 9 False, Field field_name 2 False, Field field_qualifier 1 False, Field field_variables 8 False]),
     (7325, [Field field_body 9 False, Field field_directives 8 False, Field field_extends 5 False, Field field_implements 7 False, Field field_name 2 False, Field field_qualifier 1 False]),
     (7331, [Field field_directives 8 False, Field field_extends 5 False, Field field_implements 7 False, Field field_name 2 False, Field field_qualifier 1 False, Field field_variables 9 False]),
     (7337, [Field field_directives 8 False, Field field_extends 5 False, Field field_implements 7 False, Field field_method 9 False, Field field_name 2 False, Field field_qualifier 1 False]),
     (7343, [Field field_extends 5 False, Field field_implements 7 False, Field field_name 2 False, Field field_qualifier 1 False, Field field_variables 9 False]),
     (7348, [Field field_directives 9 False, Field field_extends 5 False, Field field_implements 7 False, Field field_name 2 False, Field field_qualifier 1 False]),
     (7353, [Field field_extends 5 False, Field field_implements 7 False, Field field_method 9 False, Field field_name 2 False, Field field_qualifier 1 False]),
     (7358, [Field field_body 9 False, Field field_extends 5 False, Field field_implements 7 False, Field field_method 8 False, Field field_name 2 False, Field field_qualifier 1 False]),
     (7364, [Field field_body 9 False, Field field_extends 5 False, Field field_method 7 False, Field field_name 2 False, Field field_qualifier 1 False, Field field_variables 6 False]),
     (7370, [Field field_body 9 False, Field field_directives 6 False, Field field_extends 5 False, Field field_name 2 False, Field field_qualifier 1 False, Field field_variables 7 False]),
     (7376, [Field field_body 9 False, Field field_directives 6 False, Field field_extends 5 False, Field field_method 8 False, Field field_name 2 False, Field field_qualifier 1 False, Field field_variables 7 False]),
     (7383, [Field field_body 9 False, Field field_directives 6 False, Field field_extends 5 False, Field field_method 7 False, Field field_name 2 False, Field field_qualifier 1 False]),
     (7389, [Field field_body 9 False, Field field_extends 5 False, Field field_implements 8 False, Field field_name 2 False, Field field_qualifier 1 False]),
     (7394, [Field field_extends 5 False, Field field_implements 8 False, Field field_name 2 False, Field field_qualifier 1 False, Field field_variables 9 False]),
     (7399, [Field field_directives 9 False, Field field_extends 5 False, Field field_implements 8 False, Field field_name 2 False, Field field_qualifier 1 False]),
     (7404, [Field field_extends 5 False, Field field_implements 8 False, Field field_method 9 False, Field field_name 2 False, Field field_qualifier 1 False]),
     (7409, [Field field_body 9 False, Field field_extends 5 False, Field field_name 2 False, Field field_qualifier 1 False, Field field_variables 7 False])]"

text \<open>Lines 16497 to 16646.\<close>

definition ts_field_map_entries_63 :: "(nat \<times> TSFieldMapEntry list) list" where
  "ts_field_map_entries_63 =
    [(7414, [Field field_body 9 False, Field field_extends 5 False, Field field_method 8 False, Field field_name 2 False, Field field_qualifier 1 False, Field field_variables 7 False]),
     (7420, [Field field_body 9 False, Field field_directives 7 False, Field field_extends 5 False, Field field_name 2 False, Field field_qualifier 1 False]),
     (7425, [Field field_body 9 False, Field field_directives 7 False, Field field_extends 5 False, Field field_name 2 False, Field field_qualifier 1 False, Field field_variables 8 False]),
     (7431, [Field field_directives 7 False, Field field_extends 5 False, Field field_method 9 False, Field field_name 2 False, Field field_qualifier 1 False, Field field_variables 8 False]),
     (7437, [Field field_body 9 False, Field field_directives 7 False, Field field_extends 5 False, Field field_method 8 False, Field field_name 2 False, Field field_qualifier 1 False]),
     (7443, [Field field_body 9 False, Field field_extends 5 False, Field field_name 2 False, Field field_qualifier 1 False]),
     (7447, [Field field_body 9 False, Field field_extends 5 False, Field field_name 2 False, Field field_qualifier 1 False, Field field_variables 8 False]),
     (7452, [Field field_extends 5 False, Field field_method 9 False, Field field_name 2 False, Field field_qualifier 1 False, Field field_variables 8 False]),
     (7457, [Field field_body 9 False, Field field_directives 8 False, Field field_extends 5 False, Field field_name 2 False, Field field_qualifier 1 False]),
     (7462, [Field field_directives 8 False, Field field_extends 5 False, Field field_name 2 False, Field field_qualifier 1 False, Field field_variables 9 False]),
     (7467, [Field field_directives 8 False, Field field_extends 5 False, Field field_method 9 False, Field field_name 2 False, Field field_qualifier 1 False]),
     (7472, [Field field_body 9 False, Field field_extends 5 False, Field field_method 8 False, Field field_name 2 False, Field field_qualifier 1 False]),
     (7477, [Field field_body 9 False, Field field_extends 5 False, Field field_method 7 False, Field field_name 2 False, Field field_qualifier 1 False]),
     (7482, [Field field_body 9 False, Field field_implements 6 False, Field field_name 2 False, Field field_qualifier 1 False, Field field_variables 7 False]),
     (7487, [Field field_body 9 False, Field field_implements 6 False, Field field_method 8 False, Field field_name 2 False, Field field_qualifier 1 False, Field field_variables 7 False]),
     (7493, [Field field_body 9 False, Field field_directives 7 False, Field field_implements 6 False, Field field_name 2 False, Field field_qualifier 1 False]),
     (7498, [Field field_body 9 False, Field field_directives 7 False, Field field_implements 6 False, Field field_name 2 False, Field field_qualifier 1 False, Field field_variables 8 False]),
     (7504, [Field field_directives 7 False, Field field_implements 6 False, Field field_method 9 False, Field field_name 2 False, Field field_qualifier 1 False, Field field_variables 8 False]),
     (7510, [Field field_body 9 False, Field field_directives 7 False, Field field_implements 6 False, Field field_method 8 False, Field field_name 2 False, Field field_qualifier 1 False]),
     (7516, [Field field_body 9 False, Field field_implements 6 False, Field field_name 2 False, Field field_qualifier 1 False]),
     (7520, [Field field_body 9 False, Field field_implements 6 False, Field field_name 2 False, Field field_qualifier 1 False, Field field_variables 8 False]),
     (7525, [Field field_implements 6 False, Field field_method 9 False, Field field_name 2 False, Field field_qualifier 1 False, Field field_variables 8 False]),
     (7530, [Field field_body 9 False, Field field_directives 8 False, Field field_implements 6 False, Field field_name 2 False, Field field_qualifier 1 False]),
     (7535, [Field field_directives 8 False, Field field_implements 6 False, Field field_name 2 False, Field field_qualifier 1 False, Field field_variables 9 False])]"

text \<open>Lines 16647 to 16791.\<close>

definition ts_field_map_entries_64 :: "(nat \<times> TSFieldMapEntry list) list" where
  "ts_field_map_entries_64 =
    [(7540, [Field field_directives 8 False, Field field_implements 6 False, Field field_method 9 False, Field field_name 2 False, Field field_qualifier 1 False]),
     (7545, [Field field_body 9 False, Field field_implements 6 False, Field field_method 8 False, Field field_name 2 False, Field field_qualifier 1 False]),
     (7550, [Field field_body 9 False, Field field_implements 6 False, Field field_method 7 False, Field field_name 2 False, Field field_qualifier 1 False]),
     (7555, [Field field_body 9 False, Field field_directives 5 False, Field field_method 7 False, Field field_name 2 False, Field field_qualifier 1 False, Field field_variables 6 False]),
     (7561, [Field field_body 9 False, Field field_method 7 False, Field field_name 2 False, Field field_qualifier 1 False, Field field_variables 6 False]),
     (7566, [Field field_body 9 False, Field field_directives 6 False, Field field_name 2 False, Field field_qualifier 1 False, Field field_variables 7 False]),
     (7571, [Field field_body 9 False, Field field_directives 6 False, Field field_method 8 False, Field field_name 2 False, Field field_qualifier 1 False, Field field_variables 7 False]),
     (7577, [Field field_body 9 False, Field field_directives 6 False, Field field_method 7 False, Field field_name 2 False, Field field_qualifier 1 False]),
     (7582, [Field field_body 9 False, Field field_directives 5 False, Field field_implements 3 False, Field field_method 7 False, Field field_name 1 False, Field field_variables 6 False]),
     (7588, [Field field_body 9 False, Field field_extends 3 False, Field field_implements 5 False, Field field_method 7 False, Field field_name 1 False, Field field_variables 6 False]),
     (7594, [Field field_body 9 False, Field field_directives 6 False, Field field_extends 3 False, Field field_implements 5 False, Field field_name 1 False, Field field_variables 7 False]),
     (7600, [Field field_body 9 False, Field field_directives 6 False, Field field_extends 3 False, Field field_implements 5 False, Field field_method 8 False, Field field_name 1 False, Field field_variables 7 False]),
     (7607, [Field field_body 9 False, Field field_directives 6 False, Field field_extends 3 False, Field field_implements 5 False, Field field_method 7 False, Field field_name 1 False]),
     (7613, [Field field_body 9 False, Field field_extends 3 False, Field field_implements 5 False, Field field_name 1 False, Field field_variables 7 False]),
     (7618, [Field field_body 9 False, Field field_extends 3 False, Field field_implements 5 False, Field field_method 8 False, Field field_name 1 False, Field field_variables 7 False]),
     (7624, [Field field_body 9 False, Field field_directives 7 False, Field field_extends 3 False, Field field_implements 5 False, Field field_name 1 False]),
     (7629, [Field field_body 9 False, Field field_directives 7 False, Field field_extends 3 False, Field field_implements 5 False, Field field_name 1 False, Field field_variables 8 False]),
     (7635, [Field field_directives 7 False, Field field_extends 3 False, Field field_implements 5 False, Field field_method 9 False, Field field_name 1 False, Field field_variables 8 False]),
     (7641, [Field field_body 9 False, Field field_directives 7 False, Field field_extends 3 False, Field field_implements 5 False, Field field_method 8 False, Field field_name 1 False]),
     (7647, [Field field_body 9 False, Field field_extends 3 False, Field field_implements 5 False, Field field_method 7 False, Field field_name 1 False]),
     (7652, [Field field_body 9 False, Field field_extends 3 False, Field field_implements 6 False, Field field_name 1 False, Field field_variables 7 False]),
     (7657, [Field field_body 9 False, Field field_extends 3 False, Field field_implements 6 False, Field field_method 8 False, Field field_name 1 False, Field field_variables 7 False])]"

text \<open>Lines 16792 to 16935.\<close>

definition ts_field_map_entries_65 :: "(nat \<times> TSFieldMapEntry list) list" where
  "ts_field_map_entries_65 =
    [(7663, [Field field_body 9 False, Field field_directives 7 False, Field field_extends 3 False, Field field_implements 6 False, Field field_name 1 False]),
     (7668, [Field field_body 9 False, Field field_directives 7 False, Field field_extends 3 False, Field field_implements 6 False, Field field_name 1 False, Field field_variables 8 False]),
     (7674, [Field field_directives 7 False, Field field_extends 3 False, Field field_implements 6 False, Field field_method 9 False, Field field_name 1 False, Field field_variables 8 False]),
     (7680, [Field field_body 9 False, Field field_directives 7 False, Field field_extends 3 False, Field field_implements 6 False, Field field_method 8 False, Field field_name 1 False]),
     (7686, [Field field_body 9 False, Field field_extends 3 False, Field field_implements 6 False, Field field_name 1 False]),
     (7690, [Field field_body 9 False, Field field_extends 3 False, Field field_implements 6 False, Field field_name 1 False, Field field_variables 8 False]),
     (7695, [Field field_extends 3 False, Field field_implements 6 False, Field field_method 9 False, Field field_name 1 False, Field field_variables 8 False]),
     (7700, [Field field_body 9 False, Field field_directives 8 False, Field field_extends 3 False, Field field_implements 6 False, Field field_name 1 False]),
     (7705, [Field field_directives 8 False, Field field_extends 3 False, Field field_implements 6 False, Field field_name 1 False, Field field_variables 9 False]),
     (7710, [Field field_directives 8 False, Field field_extends 3 False, Field field_implements 6 False, Field field_method 9 False, Field field_name 1 False]),
     (7715, [Field field_body 9 False, Field field_extends 3 False, Field field_implements 6 False, Field field_method 8 False, Field field_name 1 False]),
     (7720, [Field field_body 9 False, Field field_extends 3 False, Field field_implements 6 False, Field field_method 7 False, Field field_name 1 False]),
     (7725, [Field field_body 9 False, Field field_directives 5 False, Field field_extends 3 False, Field field_method 7 False, Field field_name 1 False, Field field_variables 6 False]),
     (7731, [Field field_body 9 False, Field field_extends 3 False, Field field_method 7 False, Field field_name 1 False, Field field_variables 6 False]),
     (7736, [Field field_body 9 False, Field field_directives 6 False, Field field_extends 3 False, Field field_name 1 False, Field field_variables 7 False]),
     (7741, [Field field_body 9 False, Field field_directives 6 False, Field field_extends 3 False, Field field_method 8 False, Field field_name 1 False, Field field_variables 7 False]),
     (7747, [Field field_body 9 False, Field field_directives 6 False, Field field_extends 3 False, Field field_method 7 False, Field field_name 1 False]),
     (7752, [Field field_body 9 False, Field field_directives 5 False, Field field_implements 4 False, Field field_method 7 False, Field field_name 1 False, Field field_variables 6 False]),
     (7758, [Field field_body 9 False, Field field_implements 4 False, Field field_method 7 False, Field field_name 1 False, Field field_variables 6 False]),
     (7763, [Field field_body 9 False, Field field_directives 6 False, Field field_implements 4 False, Field field_name 1 False, Field field_variables 7 False]),
     (7768, [Field field_body 9 False, Field field_directives 6 False, Field field_implements 4 False, Field field_method 8 False, Field field_name 1 False, Field field_variables 7 False]),
     (7774, [Field field_body 9 False, Field field_directives 6 False, Field field_implements 4 False, Field field_method 7 False, Field field_name 1 False]),
     (7779, [Field field_body 9 False, Field field_extends 4 False, Field field_implements 6 False, Field field_name 1 False, Field field_variables 7 False])]"

text \<open>Lines 16936 to 17085.\<close>

definition ts_field_map_entries_66 :: "(nat \<times> TSFieldMapEntry list) list" where
  "ts_field_map_entries_66 =
    [(7784, [Field field_body 9 False, Field field_extends 4 False, Field field_implements 6 False, Field field_method 8 False, Field field_name 1 False, Field field_variables 7 False]),
     (7790, [Field field_body 9 False, Field field_directives 7 False, Field field_extends 4 False, Field field_implements 6 False, Field field_name 1 False]),
     (7795, [Field field_body 9 False, Field field_directives 7 False, Field field_extends 4 False, Field field_implements 6 False, Field field_name 1 False, Field field_variables 8 False]),
     (7801, [Field field_directives 7 False, Field field_extends 4 False, Field field_implements 6 False, Field field_method 9 False, Field field_name 1 False, Field field_variables 8 False]),
     (7807, [Field field_body 9 False, Field field_directives 7 False, Field field_extends 4 False, Field field_implements 6 False, Field field_method 8 False, Field field_name 1 False]),
     (7813, [Field field_body 9 False, Field field_extends 4 False, Field field_implements 6 False, Field field_name 1 False]),
     (7817, [Field field_body 9 False, Field field_extends 4 False, Field field_implements 6 False, Field field_name 1 False, Field field_variables 8 False]),
     (7822, [Field field_extends 4 False, Field field_implements 6 False, Field field_method 9 False, Field field_name 1 False, Field field_variables 8 False]),
     (7827, [Field field_body 9 False, Field field_directives 8 False, Field field_extends 4 False, Field field_implements 6 False, Field field_name 1 False]),
     (7832, [Field field_directives 8 False, Field field_extends 4 False, Field field_implements 6 False, Field field_name 1 False, Field field_variables 9 False]),
     (7837, [Field field_directives 8 False, Field field_extends 4 False, Field field_implements 6 False, Field field_method 9 False, Field field_name 1 False]),
     (7842, [Field field_body 9 False, Field field_extends 4 False, Field field_implements 6 False, Field field_method 8 False, Field field_name 1 False]),
     (7847, [Field field_body 9 False, Field field_extends 4 False, Field field_implements 6 False, Field field_method 7 False, Field field_name 1 False]),
     (7852, [Field field_body 9 False, Field field_directives 5 False, Field field_extends 4 False, Field field_method 7 False, Field field_name 1 False, Field field_variables 6 False]),
     (7858, [Field field_body 9 False, Field field_extends 4 False, Field field_implements 7 False, Field field_name 1 False]),
     (7862, [Field field_body 9 False, Field field_extends 4 False, Field field_implements 7 False, Field field_name 1 False, Field field_variables 8 False]),
     (7867, [Field field_extends 4 False, Field field_implements 7 False, Field field_method 9 False, Field field_name 1 False, Field field_variables 8 False]),
     (7872, [Field field_body 9 False, Field field_directives 8 False, Field field_extends 4 False, Field field_implements 7 False, Field field_name 1 False]),
     (7877, [Field field_directives 8 False, Field field_extends 4 False, Field field_implements 7 False, Field field_name 1 False, Field field_variables 9 False]),
     (7882, [Field field_directives 8 False, Field field_extends 4 False, Field field_implements 7 False, Field field_method 9 False, Field field_name 1 False]),
     (7887, [Field field_extends 4 False, Field field_implements 7 False, Field field_name 1 False, Field field_variables 9 False]),
     (7891, [Field field_directives 9 False, Field field_extends 4 False, Field field_implements 7 False, Field field_name 1 False]),
     (7895, [Field field_extends 4 False, Field field_implements 7 False, Field field_method 9 False, Field field_name 1 False]),
     (7899, [Field field_body 9 False, Field field_extends 4 False, Field field_implements 7 False, Field field_method 8 False, Field field_name 1 False]),
     (7904, [Field field_body 9 False, Field field_extends 4 False, Field field_method 7 False, Field field_name 1 False, Field field_variables 6 False])]"

text \<open>Lines 17086 to 17233.\<close>

definition ts_field_map_entries_67 :: "(nat \<times> TSFieldMapEntry list) list" where
  "ts_field_map_entries_67 =
    [(7909, [Field field_body 9 False, Field field_directives 6 False, Field field_extends 4 False, Field field_name 1 False, Field field_variables 7 False]),
     (7914, [Field field_body 9 False, Field field_directives 6 False, Field field_extends 4 False, Field field_method 8 False, Field field_name 1 False, Field field_variables 7 False]),
     (7920, [Field field_body 9 False, Field field_directives 6 False, Field field_extends 4 False, Field field_method 7 False, Field field_name 1 False]),
     (7925, [Field field_body 9 False, Field field_extends 4 False, Field field_name 1 False, Field field_variables 7 False]),
     (7929, [Field field_body 9 False, Field field_extends 4 False, Field field_method 8 False, Field field_name 1 False, Field field_variables 7 False]),
     (7934, [Field field_body 9 False, Field field_directives 7 False, Field field_extends 4 False, Field field_name 1 False]),
     (7938, [Field field_body 9 False, Field field_directives 7 False, Field field_extends 4 False, Field field_name 1 False, Field field_variables 8 False]),
     (7943, [Field field_directives 7 False, Field field_extends 4 False, Field field_method 9 False, Field field_name 1 False, Field field_variables 8 False]),
     (7948, [Field field_body 9 False, Field field_directives 7 False, Field field_extends 4 False, Field field_method 8 False, Field field_name 1 False]),
     (7953, [Field field_body 9 False, Field field_extends 4 False, Field field_method 7 False, Field field_name 1 False]),
     (7957, [Field field_body 9 False, Field field_implements 5 False, Field field_method 7 False, Field field_name 1 False, Field field_variables 6 False]),
     (7962, [Field field_body 9 False, Field field_directives 6 False, Field field_implements 5 False, Field field_name 1 False, Field field_variables 7 False]),
     (7967, [Field field_body 9 False, Field field_directives 6 False, Field field_implements 5 False, Field field_method 8 False, Field field_name 1 False, Field field_variables 7 False]),
     (7973, [Field field_body 9 False, Field field_directives 6 False, Field field_implements 5 False, Field field_method 7 False, Field field_name 1 False]),
     (7978, [Field field_body 9 False, Field field_implements 5 False, Field field_name 1 False, Field field_variables 7 False]),
     (7982, [Field field_body 9 False, Field field_implements 5 False, Field field_method 8 False, Field field_name 1 False, Field field_variables 7 False]),
     (7987, [Field field_body 9 False, Field field_directives 7 False, Field field_implements 5 False, Field field_name 1 False]),
     (7991, [Field field_body 9 False, Field field_directives 7 False, Field field_implements 5 False, Field field_name 1 False, Field field_variables 8 False]),
     (7996, [Field field_directives 7 False, Field field_implements 5 False, Field field_method 9 False, Field field_name 1 False, Field field_variables 8 False]),
     (8001, [Field field_body 9 False, Field field_directives 7 False, Field field_implements 5 False, Field field_method 8 False, Field field_name 1 False]),
     (8006, [Field field_body 9 False, Field field_implements 5 False, Field field_method 7 False, Field field_name 1 False]),
     (8010, [Field field_body 9 False, Field field_directives 5 False, Field field_method 7 False, Field field_name 1 False, Field field_variables 6 False]),
     (8015, [Field field_extends 4 False, Field field_implements 6 False, Field field_methods 9 False, Field field_modifier 1 False, Field field_name 2 False, Field field_variables 8 False]),
     (8021, [Field field_extends 4 False, Field field_implements 7 False, Field field_methods 9 False, Field field_modifier 1 False, Field field_name 2 False, Field field_variables 8 False]),
     (8027, [Field field_extends 4 False, Field field_implements 7 False, Field field_modifier 1 False, Field field_name 2 False, Field field_variables 9 False])]"

text \<open>Lines 17234 to 17378.\<close>

definition ts_field_map_entries_68 :: "(nat \<times> TSFieldMapEntry list) list" where
  "ts_field_map_entries_68 =
    [(8032, [Field field_extends 4 False, Field field_implements 7 False, Field field_methods 9 False, Field field_modifier 1 False, Field field_name 2 False]),
     (8037, [Field field_extends 5 False, Field field_implements 7 False, Field field_methods 9 False, Field field_modifier 1 False, Field field_name 2 False, Field field_variables 8 False]),
     (8043, [Field field_extends 5 False, Field field_implements 7 False, Field field_modifier 1 False, Field field_name 2 False, Field field_variables 9 False]),
     (8048, [Field field_extends 5 False, Field field_implements 7 False, Field field_methods 9 False, Field field_modifier 1 False, Field field_name 2 False]),
     (8053, [Field field_extends 5 False, Field field_implements 8 False, Field field_modifier 1 False, Field field_name 2 False, Field field_variables 9 False]),
     (8058, [Field field_extends 5 False, Field field_implements 8 False, Field field_methods 9 False, Field field_modifier 1 False, Field field_name 2 False]),
     (8063, [Field field_extends 5 False, Field field_methods 9 False, Field field_modifier 1 False, Field field_name 2 False, Field field_variables 8 False]),
     (8068, [Field field_implements 6 False, Field field_methods 9 False, Field field_modifier 1 False, Field field_name 2 False, Field field_variables 8 False]),
     (8073, [Field field_directives 3 False, Field field_extends 5 False, Field field_implements 7 False, Field field_methods 9 False, Field field_modifier 1 False, Field field_name 2 False, Field field_variables 8 False]),
     (8080, [Field field_directives 3 False, Field field_extends 5 False, Field field_implements 7 False, Field field_modifier 1 False, Field field_name 2 False, Field field_variables 9 False]),
     (8086, [Field field_directives 3 False, Field field_extends 5 False, Field field_implements 7 False, Field field_methods 9 False, Field field_modifier 1 False, Field field_name 2 False]),
     (8092, [Field field_directives 3 False, Field field_extends 5 False, Field field_implements 8 False, Field field_modifier 1 False, Field field_name 2 False, Field field_variables 9 False]),
     (8098, [Field field_directives 3 False, Field field_extends 5 False, Field field_implements 8 False, Field field_methods 9 False, Field field_modifier 1 False, Field field_name 2 False]),
     (8104, [Field field_directives 3 False, Field field_extends 5 False, Field field_methods 9 False, Field field_modifier 1 False, Field field_name 2 False, Field field_variables 8 False]),
     (8110, [Field field_directives 3 False, Field field_implements 6 False, Field field_methods 9 False, Field field_modifier 1 False, Field field_name 2 False, Field field_variables 8 False]),
     (8116, [Field field_directives 3 False, Field field_extends 6 False, Field field_implements 8 False, Field field_modifier 1 False, Field field_name 2 False, Field field_variables 9 False]),
     (8122, [Field field_directives 3 False, Field field_extends 6 False, Field field_implements 8 False, Field field_methods 9 False, Field field_modifier 1 False, Field field_name 2 False]),
     (8128, [Field field_directives 3 False, Field field_extends 6 False, Field field_implements 9 False, Field field_modifier 1 False, Field field_name 2 False]),
     (8133, [Field field_directives 3 False, Field field_extends 6 False, Field field_methods 9 False, Field field_modifier 1 False, Field field_name 2 False, Field field_variables 8 False]),
     (8139, [Field field_directives 3 False, Field field_extends 6 False, Field field_modifier 1 False, Field field_name 2 False, Field field_variables 9 False]),
     (8144, [Field field_directives 3 False, Field field_extends 6 False, Field field_methods 9 False, Field field_modifier 1 False, Field field_name 2 False]),
     (8149, [Field field_directives 3 False, Field field_implements 7 False, Field field_methods 9 False, Field field_modifier 1 False, Field field_name 2 False, Field field_variables 8 False])]"

text \<open>Lines 17379 to 17522.\<close>

definition ts_field_map_entries_69 :: "(nat \<times> TSFieldMapEntry list) list" where
  "ts_field_map_entries_69 =
    [(8155, [Field field_directives 3 False, Field field_implements 7 False, Field field_modifier 1 False, Field field_name 2 False, Field field_variables 9 False]),
     (8160, [Field field_directives 3 False, Field field_implements 7 False, Field field_methods 9 False, Field field_modifier 1 False, Field field_name 2 False]),
     (8165, [Field field_extends 3 False, Field field_implements 6 False, Field field_methods 9 False, Field field_name 1 False, Field field_variables 8 False]),
     (8170, [Field field_extends 4 False, Field field_implements 6 False, Field field_methods 9 False, Field field_name 1 False, Field field_variables 8 False]),
     (8175, [Field field_extends 4 False, Field field_implements 7 False, Field field_methods 9 False, Field field_name 1 False, Field field_variables 8 False]),
     (8180, [Field field_extends 4 False, Field field_implements 7 False, Field field_methods 9 False, Field field_name 1 False]),
     (8184, [Field field_directives 2 False, Field field_extends 4 False, Field field_implements 6 False, Field field_methods 9 False, Field field_name 1 False, Field field_variables 8 False]),
     (8190, [Field field_directives 2 False, Field field_extends 4 False, Field field_implements 7 False, Field field_methods 9 False, Field field_name 1 False, Field field_variables 8 False]),
     (8196, [Field field_directives 2 False, Field field_extends 4 False, Field field_implements 7 False, Field field_name 1 False, Field field_variables 9 False]),
     (8201, [Field field_directives 2 False, Field field_extends 4 False, Field field_implements 7 False, Field field_methods 9 False, Field field_name 1 False]),
     (8206, [Field field_directives 2 False, Field field_extends 5 False, Field field_implements 7 False, Field field_methods 9 False, Field field_name 1 False, Field field_variables 8 False]),
     (8212, [Field field_directives 2 False, Field field_extends 5 False, Field field_implements 7 False, Field field_name 1 False, Field field_variables 9 False]),
     (8217, [Field field_directives 2 False, Field field_extends 5 False, Field field_implements 7 False, Field field_methods 9 False, Field field_name 1 False]),
     (8222, [Field field_directives 2 False, Field field_extends 5 False, Field field_implements 8 False, Field field_name 1 False, Field field_variables 9 False]),
     (8227, [Field field_directives 2 False, Field field_extends 5 False, Field field_implements 8 False, Field field_methods 9 False, Field field_name 1 False]),
     (8232, [Field field_directives 2 False, Field field_extends 5 False, Field field_methods 9 False, Field field_name 1 False, Field field_variables 8 False]),
     (8237, [Field field_directives 2 False, Field field_implements 6 False, Field field_methods 9 False, Field field_name 1 False, Field field_variables 8 False]),
     (8242, [Field field_body 9 False, Field field_implements 5 False, Field field_method 7 False, Field field_name 3 False, Field field_pragmas 0 False, Field field_qualifier 2 False, Field field_variables 6 False]),
     (8249, [Field field_body 9 False, Field field_directives 6 False, Field field_implements 5 False, Field field_name 3 False, Field field_pragmas 0 False, Field field_qualifier 2 False, Field field_variables 7 False]),
     (8256, [Field field_body 9 False, Field field_directives 6 False, Field field_implements 5 False, Field field_method 8 False, Field field_name 3 False, Field field_pragmas 0 False, Field field_qualifier 2 False, Field field_variables 7 False]),
     (8264, [Field field_body 9 False, Field field_directives 6 False, Field field_implements 5 False, Field field_method 7 False, Field field_name 3 False, Field field_pragmas 0 False, Field field_qualifier 2 False]),
     (8271, [Field field_body 9 False, Field field_implements 5 False, Field field_name 3 False, Field field_pragmas 0 False, Field field_qualifier 2 False, Field field_variables 7 False])]"

text \<open>Lines 17523 to 17669.\<close>

definition ts_field_map_entries_70 :: "(nat \<times> TSFieldMapEntry list) list" where
  "ts_field_map_entries_70 =
    [(8277, [Field field_body 9 False, Field field_implements 5 False, Field field_method 8 False, Field field_name 3 False, Field field_pragmas 0 False, Field field_qualifier 2 False, Field field_variables 7 False]),
     (8284, [Field field_body 9 False, Field field_directives 7 False, Field field_implements 5 False, Field field_name 3 False, Field field_pragmas 0 False, Field field_qualifier 2 False]),
     (8290, [Field field_body 9 False, Field field_directives 7 False, Field field_implements 5 False, Field field_name 3 False, Field field_pragmas 0 False, Field field_qualifier 2 False, Field field_variables 8 False]),
     (8297, [Field field_directives 7 False, Field field_implements 5 False, Field field_method 9 False, Field field_name 3 False, Field field_pragmas 0 False, Field field_qualifier 2 False, Field field_variables 8 False]),
     (8304, [Field field_body 9 False, Field field_directives 7 False, Field field_implements 5 False, Field field_method 8 False, Field field_name 3 False, Field field_pragmas 0 False, Field field_qualifier 2 False]),
     (8311, [Field field_body 9 False, Field field_implements 5 False, Field field_method 7 False, Field field_name 3 False, Field field_pragmas 0 False, Field field_qualifier 2 False]),
     (8317, [Field field_body 9 False, Field field_extends 5 False, Field field_implements 7 False, Field field_name 3 False, Field field_pragmas 0 False, Field field_qualifier 2 False]),
     (8323, [Field field_body 9 False, Field field_extends 5 False, Field field_implements 7 False, Field field_name 3 False, Field field_pragmas 0 False, Field field_qualifier 2 False, Field field_variables 8 False]),
     (8330, [Field field_extends 5 False, Field field_implements 7 False, Field field_method 9 False, Field field_name 3 False, Field field_pragmas 0 False, Field field_qualifier 2 False, Field field_variables 8 False]),
     (8337, [Field field_body 9 False, Field field_directives 8 False, Field field_extends 5 False, Field field_implements 7 False, Field field_name 3 False, Field field_pragmas 0 False, Field field_qualifier 2 False]),
     (8344, [Field field_directives 8 False, Field field_extends 5 False, Field field_implements 7 False, Field field_name 3 False, Field field_pragmas 0 False, Field field_qualifier 2 False, Field field_variables 9 False]),
     (8351, [Field field_directives 8 False, Field field_extends 5 False, Field field_implements 7 False, Field field_method 9 False, Field field_name 3 False, Field field_pragmas 0 False, Field field_qualifier 2 False]),
     (8358, [Field field_extends 5 False, Field field_implements 7 False, Field field_name 3 False, Field field_pragmas 0 False, Field field_qualifier 2 False, Field field_variables 9 False]),
     (8364, [Field field_directives 9 False, Field field_extends 5 False, Field field_implements 7 False, Field field_name 3 False, Field field_pragmas 0 False, Field field_qualifier 2 False]),
     (8370, [Field field_extends 5 False, Field field_implements 7 False, Field field_method 9 False, Field field_name 3 False, Field field_pragmas 0 False, Field field_qualifier 2 False]),
     (8376, [Field field_body 9 False, Field field_extends 5 False, Field field_implements 7 False, Field field_method 8 False, Field field_name 3 False, Field field_pragmas 0 False, Field field_qualifier 2 False]),
     (8383, [Field field_body 9 False, Field field_extends 5 False, Field field_method 7 False, Field field_name 3 False, Field field_pragmas 0 False, Field field_qualifier 2 False, Field field_variables 6 False]),
     (8390, [Field field_body 9 False, Field field_directives 6 False, Field field_extends 5 False, Field field_name 3 False, Field field_pragmas 0 False, Field field_qualifier 2 False, Field field_variables 7 False]),
     (8397, [Field field_body 9 False, Field field_directives 6 False, Field field_extends 5 False, Field field_method 8 False, Field field_name 3 False, Field field_pragmas 0 False, Field field_qualifier 2 False, Field field_variables 7 False])]"

text \<open>Lines 17670 to 17813.\<close>

definition ts_field_map_entries_71 :: "(nat \<times> TSFieldMapEntry list) list" where
  "ts_field_map_entries_71 =
    [(8405, [Field field_body 9 False, Field field_directives 6 False, Field field_extends 5 False, Field field_method 7 False, Field field_name 3 False, Field field_pragmas 0 False, Field field_qualifier 2 False]),
     (8412, [Field field_body 9 False, Field field_extends 5 False, Field field_implements 8 False, Field field_name 3 False, Field field_pragmas 0 False, Field field_qualifier 2 False]),
     (8418, [Field field_extends 5 False, Field field_implements 8 False, Field field_name 3 False, Field field_pragmas 0 False, Field field_qualifier 2 False, Field field_variables 9 False]),
     (8424, [Field field_directives 9 False, Field field_extends 5 False, Field field_implements 8 False, Field field_name 3 False, Field field_pragmas 0 False, Field field_qualifier 2 False]),
     (8430, [Field field_extends 5 False, Field field_implements 8 False, Field field_method 9 False, Field field_name 3 False, Field field_pragmas 0 False, Field field_qualifier 2 False]),
     (8436, [Field field_body 9 False, Field field_extends 5 False, Field field_name 3 False, Field field_pragmas 0 False, Field field_qualifier 2 False, Field field_variables 7 False]),
     (8442, [Field field_body 9 False, Field field_extends 5 False, Field field_method 8 False, Field field_name 3 False, Field field_pragmas 0 False, Field field_qualifier 2 False, Field field_variables 7 False]),
     (8449, [Field field_body 9 False, Field field_directives 7 False, Field field_extends 5 False, Field field_name 3 False, Field field_pragmas 0 False, Field field_qualifier 2 False]),
     (8455, [Field field_body 9 False, Field field_directives 7 False, Field field_extends 5 False, Field field_name 3 False, Field field_pragmas 0 False, Field field_qualifier 2 False, Field field_variables 8 False]),
     (8462, [Field field_directives 7 False, Field field_extends 5 False, Field field_method 9 False, Field field_name 3 False, Field field_pragmas 0 False, Field field_qualifier 2 False, Field field_variables 8 False]),
     (8469, [Field field_body 9 False, Field field_directives 7 False, Field field_extends 5 False, Field field_method 8 False, Field field_name 3 False, Field field_pragmas 0 False, Field field_qualifier 2 False]),
     (8476, [Field field_body 9 False, Field field_extends 5 False, Field field_name 3 False, Field field_pragmas 0 False, Field field_qualifier 2 False]),
     (8481, [Field field_body 9 False, Field field_extends 5 False, Field field_name 3 False, Field field_pragmas 0 False, Field field_qualifier 2 False, Field field_variables 8 False]),
     (8487, [Field field_extends 5 False, Field field_method 9 False, Field field_name 3 False, Field field_pragmas 0 False, Field field_qualifier 2 False, Field field_variables 8 False]),
     (8493, [Field field_body 9 False, Field field_directives 8 False, Field field_extends 5 False, Field field_name 3 False, Field field_pragmas 0 False, Field field_qualifier 2 False]),
     (8499, [Field field_directives 8 False, Field field_extends 5 False, Field field_name 3 False, Field field_pragmas 0 False, Field field_qualifier 2 False, Field field_variables 9 False]),
     (8505, [Field field_directives 8 False, Field field_extends 5 False, Field field_method 9 False, Field field_name 3 False, Field field_pragmas 0 False, Field field_qualifier 2 False]),
     (8511, [Field field_body 9 False, Field field_extends 5 False, Field field_method 8 False, Field field_name 3 False, Field field_pragmas 0 False, Field field_qualifier 2 False]),
     (8517, [Field field_body 9 False, Field field_extends 5 False, Field field_method 7 False, Field field_name 3 False, Field field_pragmas 0 False, Field field_qualifier 2 False]),
     (8523, [Field field_body 9 False, Field field_implements 6 False, Field field_name 3 False, Field field_pragmas 0 False, Field field_qualifier 2 False, Field field_variables 7 False])]"

text \<open>Lines 17814 to 17957.\<close>

definition ts_field_map_entries_72 :: "(nat \<times> TSFieldMapEntry list) list" where
  "ts_field_map_entries_72 =
    [(8529, [Field field_body 9 False, Field field_implements 6 False, Field field_method 8 False, Field field_name 3 False, Field field_pragmas 0 False, Field field_qualifier 2 False, Field field_variables 7 False]),
     (8536, [Field field_body 9 False, Field field_directives 7 False, Field field_implements 6 False, Field field_name 3 False, Field field_pragmas 0 False, Field field_qualifier 2 False]),
     (8542, [Field field_body 9 False, Field field_directives 7 False, Field field_implements 6 False, Field field_name 3 False, Field field_pragmas 0 False, Field field_qualifier 2 False, Field field_variables 8 False]),
     (8549, [Field field_directives 7 False, Field field_implements 6 False, Field field_method 9 False, Field field_name 3 False, Field field_pragmas 0 False, Field field_qualifier 2 False, Field field_variables 8 False]),
     (8556, [Field field_body 9 False, Field field_directives 7 False, Field field_implements 6 False, Field field_method 8 False, Field field_name 3 False, Field field_pragmas 0 False, Field field_qualifier 2 False]),
     (8563, [Field field_body 9 False, Field field_implements 6 False, Field field_name 3 False, Field field_pragmas 0 False, Field field_qualifier 2 False]),
     (8568, [Field field_body 9 False, Field field_implements 6 False, Field field_name 3 False, Field field_pragmas 0 False, Field field_qualifier 2 False, Field field_variables 8 False]),
     (8574, [Field field_implements 6 False, Field field_method 9 False, Field field_name 3 False, Field field_pragmas 0 False, Field field_qualifier 2 False, Field field_variables 8 False]),
     (8580, [Field field_body 9 False, Field field_directives 8 False, Field field_implements 6 False, Field field_name 3 False, Field field_pragmas 0 False, Field field_qualifier 2 False]),
     (8586, [Field field_directives 8 False, Field field_implements 6 False, Field field_name 3 False, Field field_pragmas 0 False, Field field_qualifier 2 False, Field field_variables 9 False]),
     (8592, [Field field_directives 8 False, Field field_implements 6 False, Field field_method 9 False, Field field_name 3 False, Field field_pragmas 0 False, Field field_qualifier 2 False]),
     (8598, [Field field_body 9 False, Field field_implements 6 False, Field field_method 8 False, Field field_name 3 False, Field field_pragmas 0 False, Field field_qualifier 2 False]),
     (8604, [Field field_body 9 False, Field field_implements 6 False, Field field_method 7 False, Field field_name 3 False, Field field_pragmas 0 False, Field field_qualifier 2 False]),
     (8610, [Field field_body 9 False, Field field_extends 6 False, Field field_implements 8 False, Field field_name 3 False, Field field_pragmas 0 False, Field field_qualifier 2 False]),
     (8616, [Field field_extends 6 False, Field field_implements 8 False, Field field_name 3 False, Field field_pragmas 0 False, Field field_qualifier 2 False, Field field_variables 9 False]),
     (8622, [Field field_directives 9 False, Field field_extends 6 False, Field field_implements 8 False, Field field_name 3 False, Field field_pragmas 0 False, Field field_qualifier 2 False]),
     (8628, [Field field_extends 6 False, Field field_implements 8 False, Field field_method 9 False, Field field_name 3 False, Field field_pragmas 0 False, Field field_qualifier 2 False]),
     (8634, [Field field_body 9 False, Field field_extends 6 False, Field field_name 3 False, Field field_pragmas 0 False, Field field_qualifier 2 False, Field field_variables 7 False]),
     (8640, [Field field_body 9 False, Field field_extends 6 False, Field field_method 8 False, Field field_name 3 False, Field field_pragmas 0 False, Field field_qualifier 2 False, Field field_variables 7 False]),
     (8647, [Field field_body 9 False, Field field_directives 7 False, Field field_extends 6 False, Field field_name 3 False, Field field_pragmas 0 False, Field field_qualifier 2 False])]"

text \<open>Lines 17958 to 18102.\<close>

definition ts_field_map_entries_73 :: "(nat \<times> TSFieldMapEntry list) list" where
  "ts_field_map_entries_73 =
    [(8653, [Field field_body 9 False, Field field_directives 7 False, Field field_extends 6 False, Field field_name 3 False, Field field_pragmas 0 False, Field field_qualifier 2 False, Field field_variables 8 False]),
     (8660, [Field field_directives 7 False, Field field_extends 6 False, Field field_method 9 False, Field field_name 3 False, Field field_pragmas 0 False, Field field_qualifier 2 False, Field field_variables 8 False]),
     (8667, [Field field_body 9 False, Field field_directives 7 False, Field field_extends 6 False, Field field_method 8 False, Field field_name 3 False, Field field_pragmas 0 False, Field field_qualifier 2 False]),
     (8674, [Field field_extends 6 False, Field field_implements 9 False, Field field_name 3 False, Field field_pragmas 0 False, Field field_qualifier 2 False]),
     (8679, [Field field_body 9 False, Field field_extends 6 False, Field field_name 3 False, Field field_pragmas 0 False, Field field_qualifier 2 False]),
     (8684, [Field field_body 9 False, Field field_extends 6 False, Field field_name 3 False, Field field_pragmas 0 False, Field field_qualifier 2 False, Field field_variables 8 False]),
     (8690, [Field field_extends 6 False, Field field_method 9 False, Field field_name 3 False, Field field_pragmas 0 False, Field field_qualifier 2 False, Field field_variables 8 False]),
     (8696, [Field field_body 9 False, Field field_directives 8 False, Field field_extends 6 False, Field field_name 3 False, Field field_pragmas 0 False, Field field_qualifier 2 False]),
     (8702, [Field field_directives 8 False, Field field_extends 6 False, Field field_name 3 False, Field field_pragmas 0 False, Field field_qualifier 2 False, Field field_variables 9 False]),
     (8708, [Field field_directives 8 False, Field field_extends 6 False, Field field_method 9 False, Field field_name 3 False, Field field_pragmas 0 False, Field field_qualifier 2 False]),
     (8714, [Field field_extends 6 False, Field field_name 3 False, Field field_pragmas 0 False, Field field_qualifier 2 False, Field field_variables 9 False]),
     (8719, [Field field_directives 9 False, Field field_extends 6 False, Field field_name 3 False, Field field_pragmas 0 False, Field field_qualifier 2 False]),
     (8724, [Field field_extends 6 False, Field field_method 9 False, Field field_name 3 False, Field field_pragmas 0 False, Field field_qualifier 2 False]),
     (8729, [Field field_body 9 False, Field field_extends 6 False, Field field_method 8 False, Field field_name 3 False, Field field_pragmas 0 False, Field field_qualifier 2 False]),
     (8735, [Field field_body 9 False, Field field_extends 6 False, Field field_method 7 False, Field field_name 3 False, Field field_pragmas 0 False, Field field_qualifier 2 False]),
     (8741, [Field field_body 9 False, Field field_directives 5 False, Field field_method 7 False, Field field_name 3 False, Field field_pragmas 0 False, Field field_qualifier 2 False, Field field_variables 6 False]),
     (8748, [Field field_body 9 False, Field field_implements 7 False, Field field_name 3 False, Field field_pragmas 0 False, Field field_qualifier 2 False]),
     (8753, [Field field_body 9 False, Field field_implements 7 False, Field field_name 3 False, Field field_pragmas 0 False, Field field_qualifier 2 False, Field field_variables 8 False]),
     (8759, [Field field_implements 7 False, Field field_method 9 False, Field field_name 3 False, Field field_pragmas 0 False, Field field_qualifier 2 False, Field field_variables 8 False]),
     (8765, [Field field_body 9 False, Field field_directives 8 False, Field field_implements 7 False, Field field_name 3 False, Field field_pragmas 0 False, Field field_qualifier 2 False]),
     (8771, [Field field_directives 8 False, Field field_implements 7 False, Field field_name 3 False, Field field_pragmas 0 False, Field field_qualifier 2 False, Field field_variables 9 False])]"

text \<open>Lines 18103 to 18246.\<close>

definition ts_field_map_entries_74 :: "(nat \<times> TSFieldMapEntry list) list" where
  "ts_field_map_entries_74 =
    [(8777, [Field field_directives 8 False, Field field_implements 7 False, Field field_method 9 False, Field field_name 3 False, Field field_pragmas 0 False, Field field_qualifier 2 False]),
     (8783, [Field field_implements 7 False, Field field_name 3 False, Field field_pragmas 0 False, Field field_qualifier 2 False, Field field_variables 9 False]),
     (8788, [Field field_directives 9 False, Field field_implements 7 False, Field field_name 3 False, Field field_pragmas 0 False, Field field_qualifier 2 False]),
     (8793, [Field field_implements 7 False, Field field_method 9 False, Field field_name 3 False, Field field_pragmas 0 False, Field field_qualifier 2 False]),
     (8798, [Field field_body 9 False, Field field_implements 7 False, Field field_method 8 False, Field field_name 3 False, Field field_pragmas 0 False, Field field_qualifier 2 False]),
     (8804, [Field field_body 9 False, Field field_method 7 False, Field field_name 3 False, Field field_pragmas 0 False, Field field_qualifier 2 False, Field field_variables 6 False]),
     (8810, [Field field_body 9 False, Field field_directives 6 False, Field field_name 3 False, Field field_pragmas 0 False, Field field_qualifier 2 False, Field field_variables 7 False]),
     (8816, [Field field_body 9 False, Field field_directives 6 False, Field field_method 8 False, Field field_name 3 False, Field field_pragmas 0 False, Field field_qualifier 2 False, Field field_variables 7 False]),
     (8823, [Field field_body 9 False, Field field_directives 6 False, Field field_method 7 False, Field field_name 3 False, Field field_pragmas 0 False, Field field_qualifier 2 False]),
     (8829, [Field field_body 9 False, Field field_name 3 False, Field field_pragmas 0 False, Field field_qualifier 2 False, Field field_variables 7 False]),
     (8834, [Field field_body 9 False, Field field_method 8 False, Field field_name 3 False, Field field_pragmas 0 False, Field field_qualifier 2 False, Field field_variables 7 False]),
     (8840, [Field field_body 9 False, Field field_directives 7 False, Field field_name 3 False, Field field_pragmas 0 False, Field field_qualifier 2 False]),
     (8845, [Field field_body 9 False, Field field_directives 7 False, Field field_name 3 False, Field field_pragmas 0 False, Field field_qualifier 2 False, Field field_variables 8 False]),
     (8851, [Field field_directives 7 False, Field field_method 9 False, Field field_name 3 False, Field field_pragmas 0 False, Field field_qualifier 2 False, Field field_variables 8 False]),
     (8857, [Field field_body 9 False, Field field_directives 7 False, Field field_method 8 False, Field field_name 3 False, Field field_pragmas 0 False, Field field_qualifier 2 False]),
     (8863, [Field field_body 9 False, Field field_method 7 False, Field field_name 3 False, Field field_pragmas 0 False, Field field_qualifier 2 False]),
     (8868, [Field field_body 9 False, Field field_directives 5 False, Field field_implements 4 False, Field field_method 7 False, Field field_name 2 False, Field field_pragmas 0 False, Field field_variables 6 False]),
     (8875, [Field field_body 9 False, Field field_implements 4 False, Field field_method 7 False, Field field_name 2 False, Field field_pragmas 0 False, Field field_variables 6 False]),
     (8881, [Field field_body 9 False, Field field_directives 6 False, Field field_implements 4 False, Field field_name 2 False, Field field_pragmas 0 False, Field field_variables 7 False]),
     (8887, [Field field_body 9 False, Field field_directives 6 False, Field field_implements 4 False, Field field_method 8 False, Field field_name 2 False, Field field_pragmas 0 False, Field field_variables 7 False]),
     (8894, [Field field_body 9 False, Field field_directives 6 False, Field field_implements 4 False, Field field_method 7 False, Field field_name 2 False, Field field_pragmas 0 False])]"

text \<open>Lines 18247 to 18396.\<close>

definition ts_field_map_entries_75 :: "(nat \<times> TSFieldMapEntry list) list" where
  "ts_field_map_entries_75 =
    [(8900, [Field field_body 9 False, Field field_extends 4 False, Field field_implements 6 False, Field field_name 2 False, Field field_pragmas 0 False, Field field_variables 7 False]),
     (8906, [Field field_body 9 False, Field field_extends 4 False, Field field_implements 6 False, Field field_method 8 False, Field field_name 2 False, Field field_pragmas 0 False, Field field_variables 7 False]),
     (8913, [Field field_body 9 False, Field field_directives 7 False, Field field_extends 4 False, Field field_implements 6 False, Field field_name 2 False, Field field_pragmas 0 False]),
     (8919, [Field field_body 9 False, Field field_directives 7 False, Field field_extends 4 False, Field field_implements 6 False, Field field_name 2 False, Field field_pragmas 0 False, Field field_variables 8 False]),
     (8926, [Field field_directives 7 False, Field field_extends 4 False, Field field_implements 6 False, Field field_method 9 False, Field field_name 2 False, Field field_pragmas 0 False, Field field_variables 8 False]),
     (8933, [Field field_body 9 False, Field field_directives 7 False, Field field_extends 4 False, Field field_implements 6 False, Field field_method 8 False, Field field_name 2 False, Field field_pragmas 0 False]),
     (8940, [Field field_body 9 False, Field field_extends 4 False, Field field_implements 6 False, Field field_name 2 False, Field field_pragmas 0 False]),
     (8945, [Field field_body 9 False, Field field_extends 4 False, Field field_implements 6 False, Field field_name 2 False, Field field_pragmas 0 False, Field field_variables 8 False]),
     (8951, [Field field_extends 4 False, Field field_implements 6 False, Field field_method 9 False, Field field_name 2 False, Field field_pragmas 0 False, Field field_variables 8 False]),
     (8957, [Field field_body 9 False, Field field_directives 8 False, Field field_extends 4 False, Field field_implements 6 False, Field field_name 2 False, Field field_pragmas 0 False]),
     (8963, [Field field_directives 8 False, Field field_extends 4 False, Field field_implements 6 False, Field field_name 2 False, Field field_pragmas 0 False, Field field_variables 9 False]),
     (8969, [Field field_directives 8 False, Field field_extends 4 False, Field field_implements 6 False, Field field_method 9 False, Field field_name 2 False, Field field_pragmas 0 False]),
     (8975, [Field field_body 9 False, Field field_extends 4 False, Field field_implements 6 False, Field field_method 8 False, Field field_name 2 False, Field field_pragmas 0 False]),
     (8981, [Field field_body 9 False, Field field_extends 4 False, Field field_implements 6 False, Field field_method 7 False, Field field_name 2 False, Field field_pragmas 0 False]),
     (8987, [Field field_body 9 False, Field field_directives 5 False, Field field_extends 4 False, Field field_method 7 False, Field field_name 2 False, Field field_pragmas 0 False, Field field_variables 6 False]),
     (8994, [Field field_body 9 False, Field field_extends 4 False, Field field_implements 7 False, Field field_name 2 False, Field field_pragmas 0 False]),
     (8999, [Field field_body 9 False, Field field_extends 4 False, Field field_implements 7 False, Field field_name 2 False, Field field_pragmas 0 False, Field field_variables 8 False]),
     (9005, [Field field_extends 4 False, Field field_implements 7 False, Field field_method 9 False, Field field_name 2 False, Field field_pragmas 0 False, Field field_variables 8 False]),
     (9011, [Field field_body 9 False, Field field_directives 8 False, Field field_extends 4 False, Field field_implements 7 False, Field field_name 2 False, Field field_pragmas 0 False]),
     (9017, [Field field_directives 8 False, Field field_extends 4 False, Field field_implements 7 False, Field field_name 2 False, Field field_pragmas 0 False, Field field_variables 9 False]),
     (9023, [Field field_directives 8 False, Field field_extends 4 False, Field field_implements 7 False, Field field_method 9 False, Field field_name 2 False, Field field_pragmas 0 False])]"

text \<open>Lines 18397 to 18544.\<close>

definition ts_field_map_entries_76 :: "(nat \<times> TSFieldMapEntry list) list" where
  "ts_field_map_entries_76 =
    [(9029, [Field field_extends 4 False, Field field_implements 7 False, Field field_name 2 False, Field field_pragmas 0 False, Field field_variables 9 False]),
     (9034, [Field field_directives 9 False, Field field_extends 4 False, Field field_implements 7 False, Field field_name 2 False, Field field_pragmas 0 False]),
     (9039, [Field field_extends 4 False, Field field_implements 7 False, Field field_method 9 False, Field field_name 2 False, Field field_pragmas 0 False]),
     (9044, [Field field_body 9 False, Field field_extends 4 False, Field field_implements 7 False, Field field_method 8 False, Field field_name 2 False, Field field_pragmas 0 False]),
     (9050, [Field field_body 9 False, Field field_extends 4 False, Field field_method 7 False, Field field_name 2 False, Field field_pragmas 0 False, Field field_variables 6 False]),
     (9056, [Field field_body 9 False, Field field_directives 6 False, Field field_extends 4 False, Field field_name 2 False, Field field_pragmas 0 False, Field field_variables 7 False]),
     (9062, [Field field_body 9 False, Field field_directives 6 False, Field field_extends 4 False, Field field_method 8 False, Field field_name 2 False, Field field_pragmas 0 False, Field field_variables 7 False]),
     (9069, [Field field_body 9 False, Field field_directives 6 False, Field field_extends 4 False, Field field_method 7 False, Field field_name 2 False, Field field_pragmas 0 False]),
     (9075, [Field field_body 9 False, Field field_extends 4 False, Field field_name 2 False, Field field_pragmas 0 False, Field field_variables 7 False]),
     (9080, [Field field_body 9 False, Field field_extends 4 False, Field field_method 8 False, Field field_name 2 False, Field field_pragmas 0 False, Field field_variables 7 False]),
     (9086, [Field field_body 9 False, Field field_directives 7 False, Field field_extends 4 False, Field field_name 2 False, Field field_pragmas 0 False]),
     (9091, [Field field_body 9 False, Field field_directives 7 False, Field field_extends 4 False, Field field_name 2 False, Field field_pragmas 0 False, Field field_variables 8 False]),
     (9097, [Field field_directives 7 False, Field field_extends 4 False, Field field_method 9 False, Field field_name 2 False, Field field_pragmas 0 False, Field field_variables 8 False]),
     (9103, [Field field_body 9 False, Field field_directives 7 False, Field field_extends 4 False, Field field_method 8 False, Field field_name 2 False, Field field_pragmas 0 False]),
     (9109, [Field field_body 9 False, Field field_extends 4 False, Field field_method 7 False, Field field_name 2 False, Field field_pragmas 0 False]),
     (9114, [Field field_body 9 False, Field field_implements 5 False, Field field_method 7 False, Field field_name 2 False, Field field_pragmas 0 False, Field field_variables 6 False]),
     (9120, [Field field_body 9 False, Field field_directives 6 False, Field field_implements 5 False, Field field_name 2 False, Field field_pragmas 0 False, Field field_variables 7 False]),
     (9126, [Field field_body 9 False, Field field_directives 6 False, Field field_implements 5 False, Field field_method 8 False, Field field_name 2 False, Field field_pragmas 0 False, Field field_variables 7 False]),
     (9133, [Field field_body 9 False, Field field_directives 6 False, Field field_implements 5 False, Field field_method 7 False, Field field_name 2 False, Field field_pragmas 0 False]),
     (9139, [Field field_body 9 False, Field field_implements 5 False, Field field_name 2 False, Field field_pragmas 0 False, Field field_variables 7 False]),
     (9144, [Field field_body 9 False, Field field_implements 5 False, Field field_method 8 False, Field field_name 2 False, Field field_pragmas 0 False, Field field_variables 7 False]),
     (9150, [Field field_body 9 False, Field field_directives 7 False, Field field_implements 5 False, Field field_name 2 False, Field field_pragmas 0 False])]"

text \<open>Lines 18545 to 18690.\<close>

definition ts_field_map_entries_77 :: "(nat \<times> TSFieldMapEntry list) list" where
  "ts_field_map_entries_77 =
    [(9155, [Field field_body 9 False, Field field_directives 7 False, Field field_implements 5 False, Field field_name 2 False, Field field_pragmas 0 False, Field field_variables 8 False]),
     (9161, [Field field_directives 7 False, Field field_implements 5 False, Field field_method 9 False, Field field_name 2 False, Field field_pragmas 0 False, Field field_variables 8 False]),
     (9167, [Field field_body 9 False, Field field_directives 7 False, Field field_implements 5 False, Field field_method 8 False, Field field_name 2 False, Field field_pragmas 0 False]),
     (9173, [Field field_body 9 False, Field field_implements 5 False, Field field_method 7 False, Field field_name 2 False, Field field_pragmas 0 False]),
     (9178, [Field field_body 9 False, Field field_extends 5 False, Field field_implements 7 False, Field field_name 2 False, Field field_pragmas 0 False]),
     (9183, [Field field_body 9 False, Field field_extends 5 False, Field field_implements 7 False, Field field_name 2 False, Field field_pragmas 0 False, Field field_variables 8 False]),
     (9189, [Field field_extends 5 False, Field field_implements 7 False, Field field_method 9 False, Field field_name 2 False, Field field_pragmas 0 False, Field field_variables 8 False]),
     (9195, [Field field_body 9 False, Field field_directives 8 False, Field field_extends 5 False, Field field_implements 7 False, Field field_name 2 False, Field field_pragmas 0 False]),
     (9201, [Field field_directives 8 False, Field field_extends 5 False, Field field_implements 7 False, Field field_name 2 False, Field field_pragmas 0 False, Field field_variables 9 False]),
     (9207, [Field field_directives 8 False, Field field_extends 5 False, Field field_implements 7 False, Field field_method 9 False, Field field_name 2 False, Field field_pragmas 0 False]),
     (9213, [Field field_extends 5 False, Field field_implements 7 False, Field field_name 2 False, Field field_pragmas 0 False, Field field_variables 9 False]),
     (9218, [Field field_directives 9 False, Field field_extends 5 False, Field field_implements 7 False, Field field_name 2 False, Field field_pragmas 0 False]),
     (9223, [Field field_extends 5 False, Field field_implements 7 False, Field field_method 9 False, Field field_name 2 False, Field field_pragmas 0 False]),
     (9228, [Field field_body 9 False, Field field_extends 5 False, Field field_implements 7 False, Field field_method 8 False, Field field_name 2 False, Field field_pragmas 0 False]),
     (9234, [Field field_body 9 False, Field field_extends 5 False, Field field_method 7 False, Field field_name 2 False, Field field_pragmas 0 False, Field field_variables 6 False]),
     (9240, [Field field_body 9 False, Field field_directives 6 False, Field field_extends 5 False, Field field_name 2 False, Field field_pragmas 0 False, Field field_variables 7 False]),
     (9246, [Field field_body 9 False, Field field_directives 6 False, Field field_extends 5 False, Field field_method 8 False, Field field_name 2 False, Field field_pragmas 0 False, Field field_variables 7 False]),
     (9253, [Field field_body 9 False, Field field_directives 6 False, Field field_extends 5 False, Field field_method 7 False, Field field_name 2 False, Field field_pragmas 0 False]),
     (9259, [Field field_body 9 False, Field field_extends 5 False, Field field_implements 8 False, Field field_name 2 False, Field field_pragmas 0 False]),
     (9264, [Field field_extends 5 False, Field field_implements 8 False, Field field_name 2 False, Field field_pragmas 0 False, Field field_variables 9 False]),
     (9269, [Field field_directives 9 False, Field field_extends 5 False, Field field_implements 8 False, Field field_name 2 False, Field field_pragmas 0 False]),
     (9274, [Field field_extends 5 False, Field field_implements 8 False, Field field_method 9 False, Field field_name 2 False, Field field_pragmas 0 False])]"

text \<open>Lines 18691 to 18840.\<close>

definition ts_field_map_entries_78 :: "(nat \<times> TSFieldMapEntry list) list" where
  "ts_field_map_entries_78 =
    [(9279, [Field field_body 9 False, Field field_extends 5 False, Field field_name 2 False, Field field_pragmas 0 False, Field field_variables 7 False]),
     (9284, [Field field_body 9 False, Field field_extends 5 False, Field field_method 8 False, Field field_name 2 False, Field field_pragmas 0 False, Field field_variables 7 False]),
     (9290, [Field field_body 9 False, Field field_directives 7 False, Field field_extends 5 False, Field field_name 2 False, Field field_pragmas 0 False]),
     (9295, [Field field_body 9 False, Field field_directives 7 False, Field field_extends 5 False, Field field_name 2 False, Field field_pragmas 0 False, Field field_variables 8 False]),
     (9301, [Field field_directives 7 False, Field field_extends 5 False, Field field_method 9 False, Field field_name 2 False, Field field_pragmas 0 False, Field field_variables 8 False]),
     (9307, [Field field_body 9 False, Field field_directives 7 False, Field field_extends 5 False, Field field_method 8 False, Field field_name 2 False, Field field_pragmas 0 False]),
     (9313, [Field field_body 9 False, Field field_extends 5 False, Field field_name 2 False, Field field_pragmas 0 False]),
     (9317, [Field field_body 9 False, Field field_extends 5 False, Field field_name 2 False, Field field_pragmas 0 False, Field field_variables 8 False]),
     (9322, [Field field_extends 5 False, Field field_method 9 False, Field field_name 2 False, Field field_pragmas 0 False, Field field_variables 8 False]),
     (9327, [Field field_body 9 False, Field field_directives 8 False, Field field_extends 5 False, Field field_name 2 False, Field field_pragmas 0 False]),
     (9332, [Field field_directives 8 False, Field field_extends 5 False, Field field_name 2 False, Field field_pragmas 0 False, Field field_variables 9 False]),
     (9337, [Field field_directives 8 False, Field field_extends 5 False, Field field_method 9 False, Field field_name 2 False, Field field_pragmas 0 False]),
     (9342, [Field field_body 9 False, Field field_extends 5 False, Field field_method 8 False, Field field_name 2 False, Field field_pragmas 0 False]),
     (9347, [Field field_body 9 False, Field field_extends 5 False, Field field_method 7 False, Field field_name 2 False, Field field_pragmas 0 False]),
     (9352, [Field field_body 9 False, Field field_implements 6 False, Field field_name 2 False, Field field_pragmas 0 False, Field field_variables 7 False]),
     (9357, [Field field_body 9 False, Field field_implements 6 False, Field field_method 8 False, Field field_name 2 False, Field field_pragmas 0 False, Field field_variables 7 False]),
     (9363, [Field field_body 9 False, Field field_directives 7 False, Field field_implements 6 False, Field field_name 2 False, Field field_pragmas 0 False]),
     (9368, [Field field_body 9 False, Field field_directives 7 False, Field field_implements 6 False, Field field_name 2 False, Field field_pragmas 0 False, Field field_variables 8 False]),
     (9374, [Field field_directives 7 False, Field field_implements 6 False, Field field_method 9 False, Field field_name 2 False, Field field_pragmas 0 False, Field field_variables 8 False]),
     (9380, [Field field_body 9 False, Field field_directives 7 False, Field field_implements 6 False, Field field_method 8 False, Field field_name 2 False, Field field_pragmas 0 False]),
     (9386, [Field field_body 9 False, Field field_implements 6 False, Field field_name 2 False, Field field_pragmas 0 False]),
     (9390, [Field field_body 9 False, Field field_implements 6 False, Field field_name 2 False, Field field_pragmas 0 False, Field field_variables 8 False]),
     (9395, [Field field_implements 6 False, Field field_method 9 False, Field field_name 2 False, Field field_pragmas 0 False, Field field_variables 8 False]),
     (9400, [Field field_body 9 False, Field field_directives 8 False, Field field_implements 6 False, Field field_name 2 False, Field field_pragmas 0 False])]"

text \<open>Lines 18841 to 18989.\<close>

definition ts_field_map_entries_79 :: "(nat \<times> TSFieldMapEntry list) list" where
  "ts_field_map_entries_79 =
    [(9405, [Field field_directives 8 False, Field field_implements 6 False, Field field_name 2 False, Field field_pragmas 0 False, Field field_variables 9 False]),
     (9410, [Field field_directives 8 False, Field field_implements 6 False, Field field_method 9 False, Field field_name 2 False, Field field_pragmas 0 False]),
     (9415, [Field field_body 9 False, Field field_implements 6 False, Field field_method 8 False, Field field_name 2 False, Field field_pragmas 0 False]),
     (9420, [Field field_body 9 False, Field field_implements 6 False, Field field_method 7 False, Field field_name 2 False, Field field_pragmas 0 False]),
     (9425, [Field field_body 9 False, Field field_directives 5 False, Field field_method 7 False, Field field_name 2 False, Field field_pragmas 0 False, Field field_variables 6 False]),
     (9431, [Field field_body 9 False, Field field_method 7 False, Field field_name 2 False, Field field_pragmas 0 False, Field field_variables 6 False]),
     (9436, [Field field_body 9 False, Field field_directives 6 False, Field field_name 2 False, Field field_pragmas 0 False, Field field_variables 7 False]),
     (9441, [Field field_body 9 False, Field field_directives 6 False, Field field_method 8 False, Field field_name 2 False, Field field_pragmas 0 False, Field field_variables 7 False]),
     (9447, [Field field_body 9 False, Field field_directives 6 False, Field field_method 7 False, Field field_name 2 False, Field field_pragmas 0 False]),
     (9452, [Field field_dimensions 3 False, Field field_dimensions 4 True, Field field_type 7 False]),
     (9455, [Field field__override 3 False, Field field_access 1 False, Field field_body 8 False, Field field_modifier 2 False, Field field_name 4 False, Field field_return_type 6 False, Field field_variables 7 False]),
     (9462, [Field field__override 3 False, Field field_body 8 False, Field field_modifier 2 False, Field field_name 4 False, Field field_pragmas 0 False, Field field_return_type 6 False, Field field_variables 7 False]),
     (9469, [Field field__override 4 False, Field field_access 2 False, Field field_body 8 False, Field field_modifier 3 False, Field field_name 5 False, Field field_pragmas 0 False, Field field_return_type 7 False]),
     (9476, [Field field__override 4 False, Field field_access 2 False, Field field_modifier 3 False, Field field_name 5 False, Field field_pragmas 0 False, Field field_return_type 7 False, Field field_variables 8 False]),
     (9483, [Field field_access 2 False, Field field_body 8 False, Field field_modifier 3 False, Field field_name 4 False, Field field_pragmas 0 False, Field field_return_type 6 False, Field field_variables 7 False]),
     (9490, [Field field__override 3 False, Field field_access 2 False, Field field_body 8 False, Field field_name 4 False, Field field_pragmas 0 False, Field field_return_type 6 False, Field field_variables 7 False]),
     (9497, [Field field_body 10 False, Field field_directives 6 False, Field field_implements 4 False, Field field_method 8 False, Field field_name 2 False, Field field_qualifier 1 False, Field field_variables 7 False]),
     (9504, [Field field_body 10 False, Field field_extends 4 False, Field field_implements 6 False, Field field_method 8 False, Field field_name 2 False, Field field_qualifier 1 False, Field field_variables 7 False]),
     (9511, [Field field_body 10 False, Field field_directives 7 False, Field field_extends 4 False, Field field_implements 6 False, Field field_name 2 False, Field field_qualifier 1 False, Field field_variables 8 False]),
     (9518, [Field field_body 10 False, Field field_directives 7 False, Field field_extends 4 False, Field field_implements 6 False, Field field_method 9 False, Field field_name 2 False, Field field_qualifier 1 False, Field field_variables 8 False]),
     (9526, [Field field_body 10 False, Field field_directives 7 False, Field field_extends 4 False, Field field_implements 6 False, Field field_method 8 False, Field field_name 2 False, Field field_qualifier 1 False])]"

text \<open>Lines 18990 to 19136.\<close>

definition ts_field_map_entries_80 :: "(nat \<times> TSFieldMapEntry list) list" where
  "ts_field_map_entries_80 =
    [(9533, [Field field_body 10 False, Field field_extends 4 False, Field field_implements 6 False, Field field_name 2 False, Field field_qualifier 1 False, Field field_variables 8 False]),
     (9539, [Field field_body 10 False, Field field_extends 4 False, Field field_implements 6 False, Field field_method 9 False, Field field_name 2 False, Field field_qualifier 1 False, Field field_variables 8 False]),
     (9546, [Field field_body 10 False, Field field_directives 8 False, Field field_extends 4 False, Field field_implements 6 False, Field field_name 2 False, Field field_qualifier 1 False]),
     (9552, [Field field_body 10 False, Field field_directives 8 False, Field field_extends 4 False, Field field_implements 6 False, Field field_name 2 False, Field field_qualifier 1 False, Field field_variables 9 False]),
     (9559, [Field field_directives 8 False, Field field_extends 4 False, Field field_implements 6 False, Field field_method 10 False, Field field_name 2 False, Field field_qualifier 1 False, Field field_variables 9 False]),
     (9566, [Field field_body 10 False, Field field_directives 8 False, Field field_extends 4 False, Field field_implements 6 False, Field field_method 9 False, Field field_name 2 False, Field field_qualifier 1 False]),
     (9573, [Field field_body 10 False, Field field_extends 4 False, Field field_implements 6 False, Field field_method 8 False, Field field_name 2 False, Field field_qualifier 1 False]),
     (9579, [Field field_body 10 False, Field field_extends 4 False, Field field_implements 7 False, Field field_name 2 False, Field field_qualifier 1 False, Field field_variables 8 False]),
     (9585, [Field field_body 10 False, Field field_extends 4 False, Field field_implements 7 False, Field field_method 9 False, Field field_name 2 False, Field field_qualifier 1 False, Field field_variables 8 False]),
     (9592, [Field field_body 10 False, Field field_directives 8 False, Field field_extends 4 False, Field field_implements 7 False, Field field_name 2 False, Field field_qualifier 1 False]),
     (9598, [Field field_body 10 False, Field field_directives 8 False, Field field_extends 4 False, Field field_implements 7 False, Field field_name 2 False, Field field_qualifier 1 False, Field field_variables 9 False]),
     (9605, [Field field_directives 8 False, Field field_extends 4 False, Field field_implements 7 False, Field field_method 10 False, Field field_name 2 False, Field field_qualifier 1 False, Field field_variables 9 False]),
     (9612, [Field field_body 10 False, Field field_directives 8 False, Field field_extends 4 False, Field field_implements 7 False, Field field_method 9 False, Field field_name 2 False, Field field_qualifier 1 False]),
     (9619, [Field field_body 10 False, Field field_extends 4 False, Field field_implements 7 False, Field field_name 2 False, Field field_qualifier 1 False]),
     (9624, [Field field_body 10 False, Field field_extends 4 False, Field field_implements 7 False, Field field_name 2 False, Field field_qualifier 1 False, Field field_variables 9 False]),
     (9630, [Field field_extends 4 False, Field field_implements 7 False, Field field_method 10 False, Field field_name 2 False, Field field_qualifier 1 False, Field field_variables 9 False]),
     (9636, [Field field_body 10 False, Field field_directives 9 False, Field field_extends 4 False, Field field_implements 7 False, Field field_name 2 False, Field field_qualifier 1 False]),
     (9642, [Field field_directives 9 False, Field field_extends 4 False, Field field_implements 7 False, Field field_name 2 False, Field field_qualifier 1 False, Field field_variables 10 False]),
     (9648, [Field field_directives 9 False, Field field_extends 4 False, Field field_implements 7 False, Field field_method 10 False, Field field_name 2 False, Field field_qualifier 1 False]),
     (9654, [Field field_body 10 False, Field field_extends 4 False, Field field_implements 7 False, Field field_method 9 False, Field field_name 2 False, Field field_qualifier 1 False])]"

text \<open>Lines 19137 to 19283.\<close>

definition ts_field_map_entries_81 :: "(nat \<times> TSFieldMapEntry list) list" where
  "ts_field_map_entries_81 =
    [(9660, [Field field_body 10 False, Field field_extends 4 False, Field field_implements 7 False, Field field_method 8 False, Field field_name 2 False, Field field_qualifier 1 False]),
     (9666, [Field field_body 10 False, Field field_directives 6 False, Field field_extends 4 False, Field field_method 8 False, Field field_name 2 False, Field field_qualifier 1 False, Field field_variables 7 False]),
     (9673, [Field field_body 10 False, Field field_extends 4 False, Field field_method 8 False, Field field_name 2 False, Field field_qualifier 1 False, Field field_variables 7 False]),
     (9679, [Field field_body 10 False, Field field_directives 7 False, Field field_extends 4 False, Field field_name 2 False, Field field_qualifier 1 False, Field field_variables 8 False]),
     (9685, [Field field_body 10 False, Field field_directives 7 False, Field field_extends 4 False, Field field_method 9 False, Field field_name 2 False, Field field_qualifier 1 False, Field field_variables 8 False]),
     (9692, [Field field_body 10 False, Field field_directives 7 False, Field field_extends 4 False, Field field_method 8 False, Field field_name 2 False, Field field_qualifier 1 False]),
     (9698, [Field field_body 10 False, Field field_directives 6 False, Field field_implements 5 False, Field field_method 8 False, Field field_name 2 False, Field field_qualifier 1 False, Field field_variables 7 False]),
     (9705, [Field field_body 10 False, Field field_implements 5 False, Field field_method 8 False, Field field_name 2 False, Field field_qualifier 1 False, Field field_variables 7 False]),
     (9711, [Field field_body 10 False, Field field_directives 7 False, Field field_implements 5 False, Field field_name 2 False, Field field_qualifier 1 False, Field field_variables 8 False]),
     (9717, [Field field_body 10 False, Field field_directives 7 False, Field field_implements 5 False, Field field_method 9 False, Field field_name 2 False, Field field_qualifier 1 False, Field field_variables 8 False]),
     (9724, [Field field_body 10 False, Field field_directives 7 False, Field field_implements 5 False, Field field_method 8 False, Field field_name 2 False, Field field_qualifier 1 False]),
     (9730, [Field field_body 10 False, Field field_extends 5 False, Field field_implements 7 False, Field field_name 2 False, Field field_qualifier 1 False, Field field_variables 8 False]),
     (9736, [Field field_body 10 False, Field field_extends 5 False, Field field_implements 7 False, Field field_method 9 False, Field field_name 2 False, Field field_qualifier 1 False, Field field_variables 8 False]),
     (9743, [Field field_body 10 False, Field field_directives 8 False, Field field_extends 5 False, Field field_implements 7 False, Field field_name 2 False, Field field_qualifier 1 False]),
     (9749, [Field field_body 10 False, Field field_directives 8 False, Field field_extends 5 False, Field field_implements 7 False, Field field_name 2 False, Field field_qualifier 1 False, Field field_variables 9 False]),
     (9756, [Field field_directives 8 False, Field field_extends 5 False, Field field_implements 7 False, Field field_method 10 False, Field field_name 2 False, Field field_qualifier 1 False, Field field_variables 9 False]),
     (9763, [Field field_body 10 False, Field field_directives 8 False, Field field_extends 5 False, Field field_implements 7 False, Field field_method 9 False, Field field_name 2 False, Field field_qualifier 1 False]),
     (9770, [Field field_body 10 False, Field field_extends 5 False, Field field_implements 7 False, Field field_name 2 False, Field field_qualifier 1 False]),
     (9775, [Field field_body 10 False, Field field_extends 5 False, Field field_implements 7 False, Field field_name 2 False, Field field_qualifier 1 False, Field field_variables 9 False]),
     (9781, [Field field_extends 5 False, Field field_implements 7 False, Field field_method 10 False, Field field_name 2 False, Field field_qualifier 1 False, Field field_variables 9 False])]"

text \<open>Lines 19284 to 19427.\<close>

definition ts_field_map_entries_82 :: "(nat \<times> TSFieldMapEntry list) list" where
  "ts_field_map_entries_82 =
    [(9787, [Field field_body 10 False, Field field_directives 9 False, Field field_extends 5 False, Field field_implements 7 False, Field field_name 2 False, Field field_qualifier 1 False]),
     (9793, [Field field_directives 9 False, Field field_extends 5 False, Field field_implements 7 False, Field field_name 2 False, Field field_qualifier 1 False, Field field_variables 10 False]),
     (9799, [Field field_directives 9 False, Field field_extends 5 False, Field field_implements 7 False, Field field_method 10 False, Field field_name 2 False, Field field_qualifier 1 False]),
     (9805, [Field field_body 10 False, Field field_extends 5 False, Field field_implements 7 False, Field field_method 9 False, Field field_name 2 False, Field field_qualifier 1 False]),
     (9811, [Field field_body 10 False, Field field_extends 5 False, Field field_implements 7 False, Field field_method 8 False, Field field_name 2 False, Field field_qualifier 1 False]),
     (9817, [Field field_body 10 False, Field field_directives 6 False, Field field_extends 5 False, Field field_method 8 False, Field field_name 2 False, Field field_qualifier 1 False, Field field_variables 7 False]),
     (9824, [Field field_body 10 False, Field field_extends 5 False, Field field_implements 8 False, Field field_name 2 False, Field field_qualifier 1 False]),
     (9829, [Field field_body 10 False, Field field_extends 5 False, Field field_implements 8 False, Field field_name 2 False, Field field_qualifier 1 False, Field field_variables 9 False]),
     (9835, [Field field_extends 5 False, Field field_implements 8 False, Field field_method 10 False, Field field_name 2 False, Field field_qualifier 1 False, Field field_variables 9 False]),
     (9841, [Field field_body 10 False, Field field_directives 9 False, Field field_extends 5 False, Field field_implements 8 False, Field field_name 2 False, Field field_qualifier 1 False]),
     (9847, [Field field_directives 9 False, Field field_extends 5 False, Field field_implements 8 False, Field field_name 2 False, Field field_qualifier 1 False, Field field_variables 10 False]),
     (9853, [Field field_directives 9 False, Field field_extends 5 False, Field field_implements 8 False, Field field_method 10 False, Field field_name 2 False, Field field_qualifier 1 False]),
     (9859, [Field field_extends 5 False, Field field_implements 8 False, Field field_name 2 False, Field field_qualifier 1 False, Field field_variables 10 False]),
     (9864, [Field field_directives 10 False, Field field_extends 5 False, Field field_implements 8 False, Field field_name 2 False, Field field_qualifier 1 False]),
     (9869, [Field field_extends 5 False, Field field_implements 8 False, Field field_method 10 False, Field field_name 2 False, Field field_qualifier 1 False]),
     (9874, [Field field_body 10 False, Field field_extends 5 False, Field field_implements 8 False, Field field_method 9 False, Field field_name 2 False, Field field_qualifier 1 False]),
     (9880, [Field field_body 10 False, Field field_extends 5 False, Field field_method 8 False, Field field_name 2 False, Field field_qualifier 1 False, Field field_variables 7 False]),
     (9886, [Field field_body 10 False, Field field_directives 7 False, Field field_extends 5 False, Field field_name 2 False, Field field_qualifier 1 False, Field field_variables 8 False]),
     (9892, [Field field_body 10 False, Field field_directives 7 False, Field field_extends 5 False, Field field_method 9 False, Field field_name 2 False, Field field_qualifier 1 False, Field field_variables 8 False]),
     (9899, [Field field_body 10 False, Field field_directives 7 False, Field field_extends 5 False, Field field_method 8 False, Field field_name 2 False, Field field_qualifier 1 False]),
     (9905, [Field field_body 10 False, Field field_extends 5 False, Field field_name 2 False, Field field_qualifier 1 False, Field field_variables 8 False])]"

text \<open>Lines 19428 to 19571.\<close>

definition ts_field_map_entries_83 :: "(nat \<times> TSFieldMapEntry list) list" where
  "ts_field_map_entries_83 =
    [(9910, [Field field_body 10 False, Field field_extends 5 False, Field field_method 9 False, Field field_name 2 False, Field field_qualifier 1 False, Field field_variables 8 False]),
     (9916, [Field field_body 10 False, Field field_directives 8 False, Field field_extends 5 False, Field field_name 2 False, Field field_qualifier 1 False]),
     (9921, [Field field_body 10 False, Field field_directives 8 False, Field field_extends 5 False, Field field_name 2 False, Field field_qualifier 1 False, Field field_variables 9 False]),
     (9927, [Field field_directives 8 False, Field field_extends 5 False, Field field_method 10 False, Field field_name 2 False, Field field_qualifier 1 False, Field field_variables 9 False]),
     (9933, [Field field_body 10 False, Field field_directives 8 False, Field field_extends 5 False, Field field_method 9 False, Field field_name 2 False, Field field_qualifier 1 False]),
     (9939, [Field field_body 10 False, Field field_extends 5 False, Field field_method 8 False, Field field_name 2 False, Field field_qualifier 1 False]),
     (9944, [Field field_body 10 False, Field field_implements 6 False, Field field_method 8 False, Field field_name 2 False, Field field_qualifier 1 False, Field field_variables 7 False]),
     (9950, [Field field_body 10 False, Field field_directives 7 False, Field field_implements 6 False, Field field_name 2 False, Field field_qualifier 1 False, Field field_variables 8 False]),
     (9956, [Field field_body 10 False, Field field_directives 7 False, Field field_implements 6 False, Field field_method 9 False, Field field_name 2 False, Field field_qualifier 1 False, Field field_variables 8 False]),
     (9963, [Field field_body 10 False, Field field_directives 7 False, Field field_implements 6 False, Field field_method 8 False, Field field_name 2 False, Field field_qualifier 1 False]),
     (9969, [Field field_body 10 False, Field field_implements 6 False, Field field_name 2 False, Field field_qualifier 1 False, Field field_variables 8 False]),
     (9974, [Field field_body 10 False, Field field_implements 6 False, Field field_method 9 False, Field field_name 2 False, Field field_qualifier 1 False, Field field_variables 8 False]),
     (9980, [Field field_body 10 False, Field field_directives 8 False, Field field_implements 6 False, Field field_name 2 False, Field field_qualifier 1 False]),
     (9985, [Field field_body 10 False, Field field_directives 8 False, Field field_implements 6 False, Field field_name 2 False, Field field_qualifier 1 False, Field field_variables 9 False]),
     (9991, [Field field_directives 8 False, Field field_implements 6 False, Field field_method 10 False, Field field_name 2 False, Field field_qualifier 1 False, Field field_variables 9 False]),
     (9997, [Field field_body 10 False, Field field_directives 8 False, Field field_implements 6 False, Field field_method 9 False, Field field_name 2 False, Field field_qualifier 1 False]),
     (10003, [Field field_body 10 False, Field field_implements 6 False, Field field_method 8 False, Field field_name 2 False, Field field_qualifier 1 False]),
     (10008, [Field field_body 10 False, Field field_directives 6 False, Field field_method 8 False, Field field_name 2 False, Field field_qualifier 1 False, Field field_variables 7 False]),
     (10014, [Field field_body 10 False, Field field_directives 6 False, Field field_extends 3 False, Field field_implements 5 False, Field field_method 8 False, Field field_name 1 False, Field field_variables 7 False]),
     (10021, [Field field_body 10 False, Field field_extends 3 False, Field field_implements 5 False, Field field_method 8 False, Field field_name 1 False, Field field_variables 7 False]),
     (10027, [Field field_body 10 False, Field field_directives 7 False, Field field_extends 3 False, Field field_implements 5 False, Field field_name 1 False, Field field_variables 8 False])]"

text \<open>Lines 19572 to 19717.\<close>

definition ts_field_map_entries_84 :: "(nat \<times> TSFieldMapEntry list) list" where
  "ts_field_map_entries_84 =
    [(10033, [Field field_body 10 False, Field field_directives 7 False, Field field_extends 3 False, Field field_implements 5 False, Field field_method 9 False, Field field_name 1 False, Field field_variables 8 False]),
     (10040, [Field field_body 10 False, Field field_directives 7 False, Field field_extends 3 False, Field field_implements 5 False, Field field_method 8 False, Field field_name 1 False]),
     (10046, [Field field_body 10 False, Field field_extends 3 False, Field field_implements 6 False, Field field_method 8 False, Field field_name 1 False, Field field_variables 7 False]),
     (10052, [Field field_body 10 False, Field field_directives 7 False, Field field_extends 3 False, Field field_implements 6 False, Field field_name 1 False, Field field_variables 8 False]),
     (10058, [Field field_body 10 False, Field field_directives 7 False, Field field_extends 3 False, Field field_implements 6 False, Field field_method 9 False, Field field_name 1 False, Field field_variables 8 False]),
     (10065, [Field field_body 10 False, Field field_directives 7 False, Field field_extends 3 False, Field field_implements 6 False, Field field_method 8 False, Field field_name 1 False]),
     (10071, [Field field_body 10 False, Field field_extends 3 False, Field field_implements 6 False, Field field_name 1 False, Field field_variables 8 False]),
     (10076, [Field field_body 10 False, Field field_extends 3 False, Field field_implements 6 False, Field field_method 9 False, Field field_name 1 False, Field field_variables 8 False]),
     (10082, [Field field_body 10 False, Field field_directives 8 False, Field field_extends 3 False, Field field_implements 6 False, Field field_name 1 False]),
     (10087, [Field field_body 10 False, Field field_directives 8 False, Field field_extends 3 False, Field field_implements 6 False, Field field_name 1 False, Field field_variables 9 False]),
     (10093, [Field field_directives 8 False, Field field_extends 3 False, Field field_implements 6 False, Field field_method 10 False, Field field_name 1 False, Field field_variables 9 False]),
     (10099, [Field field_body 10 False, Field field_directives 8 False, Field field_extends 3 False, Field field_implements 6 False, Field field_method 9 False, Field field_name 1 False]),
     (10105, [Field field_body 10 False, Field field_extends 3 False, Field field_implements 6 False, Field field_method 8 False, Field field_name 1 False]),
     (10110, [Field field_body 10 False, Field field_directives 6 False, Field field_extends 3 False, Field field_method 8 False, Field field_name 1 False, Field field_variables 7 False]),
     (10116, [Field field_body 10 False, Field field_directives 6 False, Field field_implements 4 False, Field field_method 8 False, Field field_name 1 False, Field field_variables 7 False]),
     (10122, [Field field_body 10 False, Field field_extends 4 False, Field field_implements 6 False, Field field_method 8 False, Field field_name 1 False, Field field_variables 7 False]),
     (10128, [Field field_body 10 False, Field field_directives 7 False, Field field_extends 4 False, Field field_implements 6 False, Field field_name 1 False, Field field_variables 8 False]),
     (10134, [Field field_body 10 False, Field field_directives 7 False, Field field_extends 4 False, Field field_implements 6 False, Field field_method 9 False, Field field_name 1 False, Field field_variables 8 False]),
     (10141, [Field field_body 10 False, Field field_directives 7 False, Field field_extends 4 False, Field field_implements 6 False, Field field_method 8 False, Field field_name 1 False]),
     (10147, [Field field_body 10 False, Field field_extends 4 False, Field field_implements 6 False, Field field_name 1 False, Field field_variables 8 False]),
     (10152, [Field field_body 10 False, Field field_extends 4 False, Field field_implements 6 False, Field field_method 9 False, Field field_name 1 False, Field field_variables 8 False])]"

text \<open>Lines 19718 to 19863.\<close>

definition ts_field_map_entries_85 :: "(nat \<times> TSFieldMapEntry list) list" where
  "ts_field_map_entries_85 =
    [(10158, [Field field_body 10 False, Field field_directives 8 False, Field field_extends 4 False, Field field_implements 6 False, Field field_name 1 False]),
     (10163, [Field field_body 10 False, Field field_directives 8 False, Field field_extends 4 False, Field field_implements 6 False, Field field_name 1 False, Field field_variables 9 False]),
     (10169, [Field field_directives 8 False, Field field_extends 4 False, Field field_implements 6 False, Field field_method 10 False, Field field_name 1 False, Field field_variables 9 False]),
     (10175, [Field field_body 10 False, Field field_directives 8 False, Field field_extends 4 False, Field field_implements 6 False, Field field_method 9 False, Field field_name 1 False]),
     (10181, [Field field_body 10 False, Field field_extends 4 False, Field field_implements 6 False, Field field_method 8 False, Field field_name 1 False]),
     (10186, [Field field_body 10 False, Field field_extends 4 False, Field field_implements 7 False, Field field_name 1 False, Field field_variables 8 False]),
     (10191, [Field field_body 10 False, Field field_extends 4 False, Field field_implements 7 False, Field field_method 9 False, Field field_name 1 False, Field field_variables 8 False]),
     (10197, [Field field_body 10 False, Field field_directives 8 False, Field field_extends 4 False, Field field_implements 7 False, Field field_name 1 False]),
     (10202, [Field field_body 10 False, Field field_directives 8 False, Field field_extends 4 False, Field field_implements 7 False, Field field_name 1 False, Field field_variables 9 False]),
     (10208, [Field field_directives 8 False, Field field_extends 4 False, Field field_implements 7 False, Field field_method 10 False, Field field_name 1 False, Field field_variables 9 False]),
     (10214, [Field field_body 10 False, Field field_directives 8 False, Field field_extends 4 False, Field field_implements 7 False, Field field_method 9 False, Field field_name 1 False]),
     (10220, [Field field_body 10 False, Field field_extends 4 False, Field field_implements 7 False, Field field_name 1 False]),
     (10224, [Field field_body 10 False, Field field_extends 4 False, Field field_implements 7 False, Field field_name 1 False, Field field_variables 9 False]),
     (10229, [Field field_extends 4 False, Field field_implements 7 False, Field field_method 10 False, Field field_name 1 False, Field field_variables 9 False]),
     (10234, [Field field_body 10 False, Field field_directives 9 False, Field field_extends 4 False, Field field_implements 7 False, Field field_name 1 False]),
     (10239, [Field field_directives 9 False, Field field_extends 4 False, Field field_implements 7 False, Field field_name 1 False, Field field_variables 10 False]),
     (10244, [Field field_directives 9 False, Field field_extends 4 False, Field field_implements 7 False, Field field_method 10 False, Field field_name 1 False]),
     (10249, [Field field_body 10 False, Field field_extends 4 False, Field field_implements 7 False, Field field_method 9 False, Field field_name 1 False]),
     (10254, [Field field_body 10 False, Field field_extends 4 False, Field field_implements 7 False, Field field_method 8 False, Field field_name 1 False]),
     (10259, [Field field_body 10 False, Field field_directives 6 False, Field field_extends 4 False, Field field_method 8 False, Field field_name 1 False, Field field_variables 7 False]),
     (10265, [Field field_body 10 False, Field field_extends 4 False, Field field_method 8 False, Field field_name 1 False, Field field_variables 7 False]),
     (10270, [Field field_body 10 False, Field field_directives 7 False, Field field_extends 4 False, Field field_name 1 False, Field field_variables 8 False]),
     (10275, [Field field_body 10 False, Field field_directives 7 False, Field field_extends 4 False, Field field_method 9 False, Field field_name 1 False, Field field_variables 8 False])]"

text \<open>Lines 19864 to 20007.\<close>

definition ts_field_map_entries_86 :: "(nat \<times> TSFieldMapEntry list) list" where
  "ts_field_map_entries_86 =
    [(10281, [Field field_body 10 False, Field field_directives 7 False, Field field_extends 4 False, Field field_method 8 False, Field field_name 1 False]),
     (10286, [Field field_body 10 False, Field field_directives 6 False, Field field_implements 5 False, Field field_method 8 False, Field field_name 1 False, Field field_variables 7 False]),
     (10292, [Field field_body 10 False, Field field_implements 5 False, Field field_method 8 False, Field field_name 1 False, Field field_variables 7 False]),
     (10297, [Field field_body 10 False, Field field_directives 7 False, Field field_implements 5 False, Field field_name 1 False, Field field_variables 8 False]),
     (10302, [Field field_body 10 False, Field field_directives 7 False, Field field_implements 5 False, Field field_method 9 False, Field field_name 1 False, Field field_variables 8 False]),
     (10308, [Field field_body 10 False, Field field_directives 7 False, Field field_implements 5 False, Field field_method 8 False, Field field_name 1 False]),
     (10313, [Field field_extends 4 False, Field field_implements 7 False, Field field_methods 10 False, Field field_modifier 1 False, Field field_name 2 False, Field field_variables 9 False]),
     (10319, [Field field_extends 5 False, Field field_implements 7 False, Field field_methods 10 False, Field field_modifier 1 False, Field field_name 2 False, Field field_variables 9 False]),
     (10325, [Field field_extends 5 False, Field field_implements 8 False, Field field_methods 10 False, Field field_modifier 1 False, Field field_name 2 False, Field field_variables 9 False]),
     (10331, [Field field_extends 5 False, Field field_implements 8 False, Field field_modifier 1 False, Field field_name 2 False, Field field_variables 10 False]),
     (10336, [Field field_extends 5 False, Field field_implements 8 False, Field field_methods 10 False, Field field_modifier 1 False, Field field_name 2 False]),
     (10341, [Field field_directives 3 False, Field field_extends 5 False, Field field_implements 7 False, Field field_methods 10 False, Field field_modifier 1 False, Field field_name 2 False, Field field_variables 9 False]),
     (10348, [Field field_directives 3 False, Field field_extends 5 False, Field field_implements 8 False, Field field_methods 10 False, Field field_modifier 1 False, Field field_name 2 False, Field field_variables 9 False]),
     (10355, [Field field_directives 3 False, Field field_extends 5 False, Field field_implements 8 False, Field field_modifier 1 False, Field field_name 2 False, Field field_variables 10 False]),
     (10361, [Field field_directives 3 False, Field field_extends 5 False, Field field_implements 8 False, Field field_methods 10 False, Field field_modifier 1 False, Field field_name 2 False]),
     (10367, [Field field_directives 3 False, Field field_extends 6 False, Field field_implements 8 False, Field field_methods 10 False, Field field_modifier 1 False, Field field_name 2 False, Field field_variables 9 False]),
     (10374, [Field field_directives 3 False, Field field_extends 6 False, Field field_implements 8 False, Field field_modifier 1 False, Field field_name 2 False, Field field_variables 10 False]),
     (10380, [Field field_directives 3 False, Field field_extends 6 False, Field field_implements 8 False, Field field_methods 10 False, Field field_modifier 1 False, Field field_name 2 False]),
     (10386, [Field field_directives 3 False, Field field_extends 6 False, Field field_implements 9 False, Field field_modifier 1 False, Field field_name 2 False, Field field_variables 10 False]),
     (10392, [Field field_directives 3 False, Field field_extends 6 False, Field field_implements 9 False, Field field_methods 10 False, Field field_modifier 1 False, Field field_name 2 False]),
     (10398, [Field field_directives 3 False, Field field_extends 6 False, Field field_methods 10 False, Field field_modifier 1 False, Field field_name 2 False, Field field_variables 9 False])]"

text \<open>Lines 20008 to 20154.\<close>

definition ts_field_map_entries_87 :: "(nat \<times> TSFieldMapEntry list) list" where
  "ts_field_map_entries_87 =
    [(10404, [Field field_directives 3 False, Field field_implements 7 False, Field field_methods 10 False, Field field_modifier 1 False, Field field_name 2 False, Field field_variables 9 False]),
     (10410, [Field field_extends 4 False, Field field_implements 7 False, Field field_methods 10 False, Field field_name 1 False, Field field_variables 9 False]),
     (10415, [Field field_directives 2 False, Field field_extends 4 False, Field field_implements 7 False, Field field_methods 10 False, Field field_name 1 False, Field field_variables 9 False]),
     (10421, [Field field_directives 2 False, Field field_extends 5 False, Field field_implements 7 False, Field field_methods 10 False, Field field_name 1 False, Field field_variables 9 False]),
     (10427, [Field field_directives 2 False, Field field_extends 5 False, Field field_implements 8 False, Field field_methods 10 False, Field field_name 1 False, Field field_variables 9 False]),
     (10433, [Field field_directives 2 False, Field field_extends 5 False, Field field_implements 8 False, Field field_name 1 False, Field field_variables 10 False]),
     (10438, [Field field_directives 2 False, Field field_extends 5 False, Field field_implements 8 False, Field field_methods 10 False, Field field_name 1 False]),
     (10443, [Field field_body 10 False, Field field_directives 6 False, Field field_implements 5 False, Field field_method 8 False, Field field_name 3 False, Field field_pragmas 0 False, Field field_qualifier 2 False, Field field_variables 7 False]),
     (10451, [Field field_body 10 False, Field field_implements 5 False, Field field_method 8 False, Field field_name 3 False, Field field_pragmas 0 False, Field field_qualifier 2 False, Field field_variables 7 False]),
     (10458, [Field field_body 10 False, Field field_directives 7 False, Field field_implements 5 False, Field field_name 3 False, Field field_pragmas 0 False, Field field_qualifier 2 False, Field field_variables 8 False]),
     (10465, [Field field_body 10 False, Field field_directives 7 False, Field field_implements 5 False, Field field_method 9 False, Field field_name 3 False, Field field_pragmas 0 False, Field field_qualifier 2 False, Field field_variables 8 False]),
     (10473, [Field field_body 10 False, Field field_directives 7 False, Field field_implements 5 False, Field field_method 8 False, Field field_name 3 False, Field field_pragmas 0 False, Field field_qualifier 2 False]),
     (10480, [Field field_body 10 False, Field field_extends 5 False, Field field_implements 7 False, Field field_name 3 False, Field field_pragmas 0 False, Field field_qualifier 2 False, Field field_variables 8 False]),
     (10487, [Field field_body 10 False, Field field_extends 5 False, Field field_implements 7 False, Field field_method 9 False, Field field_name 3 False, Field field_pragmas 0 False, Field field_qualifier 2 False, Field field_variables 8 False]),
     (10495, [Field field_body 10 False, Field field_directives 8 False, Field field_extends 5 False, Field field_implements 7 False, Field field_name 3 False, Field field_pragmas 0 False, Field field_qualifier 2 False]),
     (10502, [Field field_body 10 False, Field field_directives 8 False, Field field_extends 5 False, Field field_implements 7 False, Field field_name 3 False, Field field_pragmas 0 False, Field field_qualifier 2 False, Field field_variables 9 False]),
     (10510, [Field field_directives 8 False, Field field_extends 5 False, Field field_implements 7 False, Field field_method 10 False, Field field_name 3 False, Field field_pragmas 0 False, Field field_qualifier 2 False, Field field_variables 9 False]),
     (10518, [Field field_body 10 False, Field field_directives 8 False, Field field_extends 5 False, Field field_implements 7 False, Field field_method 9 False, Field field_name 3 False, Field field_pragmas 0 False, Field field_qualifier 2 False]),
     (10526, [Field field_body 10 False, Field field_extends 5 False, Field field_implements 7 False, Field field_name 3 False, Field field_pragmas 0 False, Field field_qualifier 2 False])]"

text \<open>Lines 20155 to 20303.\<close>

definition ts_field_map_entries_88 :: "(nat \<times> TSFieldMapEntry list) list" where
  "ts_field_map_entries_88 =
    [(10532, [Field field_body 10 False, Field field_extends 5 False, Field field_implements 7 False, Field field_name 3 False, Field field_pragmas 0 False, Field field_qualifier 2 False, Field field_variables 9 False]),
     (10539, [Field field_extends 5 False, Field field_implements 7 False, Field field_method 10 False, Field field_name 3 False, Field field_pragmas 0 False, Field field_qualifier 2 False, Field field_variables 9 False]),
     (10546, [Field field_body 10 False, Field field_directives 9 False, Field field_extends 5 False, Field field_implements 7 False, Field field_name 3 False, Field field_pragmas 0 False, Field field_qualifier 2 False]),
     (10553, [Field field_directives 9 False, Field field_extends 5 False, Field field_implements 7 False, Field field_name 3 False, Field field_pragmas 0 False, Field field_qualifier 2 False, Field field_variables 10 False]),
     (10560, [Field field_directives 9 False, Field field_extends 5 False, Field field_implements 7 False, Field field_method 10 False, Field field_name 3 False, Field field_pragmas 0 False, Field field_qualifier 2 False]),
     (10567, [Field field_body 10 False, Field field_extends 5 False, Field field_implements 7 False, Field field_method 9 False, Field field_name 3 False, Field field_pragmas 0 False, Field field_qualifier 2 False]),
     (10574, [Field field_body 10 False, Field field_extends 5 False, Field field_implements 7 False, Field field_method 8 False, Field field_name 3 False, Field field_pragmas 0 False, Field field_qualifier 2 False]),
     (10581, [Field field_body 10 False, Field field_directives 6 False, Field field_extends 5 False, Field field_method 8 False, Field field_name 3 False, Field field_pragmas 0 False, Field field_qualifier 2 False, Field field_variables 7 False]),
     (10589, [Field field_body 10 False, Field field_extends 5 False, Field field_implements 8 False, Field field_name 3 False, Field field_pragmas 0 False, Field field_qualifier 2 False]),
     (10595, [Field field_body 10 False, Field field_extends 5 False, Field field_implements 8 False, Field field_name 3 False, Field field_pragmas 0 False, Field field_qualifier 2 False, Field field_variables 9 False]),
     (10602, [Field field_extends 5 False, Field field_implements 8 False, Field field_method 10 False, Field field_name 3 False, Field field_pragmas 0 False, Field field_qualifier 2 False, Field field_variables 9 False]),
     (10609, [Field field_body 10 False, Field field_directives 9 False, Field field_extends 5 False, Field field_implements 8 False, Field field_name 3 False, Field field_pragmas 0 False, Field field_qualifier 2 False]),
     (10616, [Field field_directives 9 False, Field field_extends 5 False, Field field_implements 8 False, Field field_name 3 False, Field field_pragmas 0 False, Field field_qualifier 2 False, Field field_variables 10 False]),
     (10623, [Field field_directives 9 False, Field field_extends 5 False, Field field_implements 8 False, Field field_method 10 False, Field field_name 3 False, Field field_pragmas 0 False, Field field_qualifier 2 False]),
     (10630, [Field field_extends 5 False, Field field_implements 8 False, Field field_name 3 False, Field field_pragmas 0 False, Field field_qualifier 2 False, Field field_variables 10 False]),
     (10636, [Field field_directives 10 False, Field field_extends 5 False, Field field_implements 8 False, Field field_name 3 False, Field field_pragmas 0 False, Field field_qualifier 2 False]),
     (10642, [Field field_extends 5 False, Field field_implements 8 False, Field field_method 10 False, Field field_name 3 False, Field field_pragmas 0 False, Field field_qualifier 2 False]),
     (10648, [Field field_body 10 False, Field field_extends 5 False, Field field_implements 8 False, Field field_method 9 False, Field field_name 3 False, Field field_pragmas 0 False, Field field_qualifier 2 False]),
     (10655, [Field field_body 10 False, Field field_extends 5 False, Field field_method 8 False, Field field_name 3 False, Field field_pragmas 0 False, Field field_qualifier 2 False, Field field_variables 7 False])]"

text \<open>Lines 20304 to 20452.\<close>

definition ts_field_map_entries_89 :: "(nat \<times> TSFieldMapEntry list) list" where
  "ts_field_map_entries_89 =
    [(10662, [Field field_body 10 False, Field field_directives 7 False, Field field_extends 5 False, Field field_name 3 False, Field field_pragmas 0 False, Field field_qualifier 2 False, Field field_variables 8 False]),
     (10669, [Field field_body 10 False, Field field_directives 7 False, Field field_extends 5 False, Field field_method 9 False, Field field_name 3 False, Field field_pragmas 0 False, Field field_qualifier 2 False, Field field_variables 8 False]),
     (10677, [Field field_body 10 False, Field field_directives 7 False, Field field_extends 5 False, Field field_method 8 False, Field field_name 3 False, Field field_pragmas 0 False, Field field_qualifier 2 False]),
     (10684, [Field field_body 10 False, Field field_extends 5 False, Field field_name 3 False, Field field_pragmas 0 False, Field field_qualifier 2 False, Field field_variables 8 False]),
     (10690, [Field field_body 10 False, Field field_extends 5 False, Field field_method 9 False, Field field_name 3 False, Field field_pragmas 0 False, Field field_qualifier 2 False, Field field_variables 8 False]),
     (10697, [Field field_body 10 False, Field field_directives 8 False, Field field_extends 5 False, Field field_name 3 False, Field field_pragmas 0 False, Field field_qualifier 2 False]),
     (10703, [Field field_body 10 False, Field field_directives 8 False, Field field_extends 5 False, Field field_name 3 False, Field field_pragmas 0 False, Field field_qualifier 2 False, Field field_variables 9 False]),
     (10710, [Field field_directives 8 False, Field field_extends 5 False, Field field_method 10 False, Field field_name 3 False, Field field_pragmas 0 False, Field field_qualifier 2 False, Field field_variables 9 False]),
     (10717, [Field field_body 10 False, Field field_directives 8 False, Field field_extends 5 False, Field field_method 9 False, Field field_name 3 False, Field field_pragmas 0 False, Field field_qualifier 2 False]),
     (10724, [Field field_body 10 False, Field field_extends 5 False, Field field_method 8 False, Field field_name 3 False, Field field_pragmas 0 False, Field field_qualifier 2 False]),
     (10730, [Field field_body 10 False, Field field_implements 6 False, Field field_method 8 False, Field field_name 3 False, Field field_pragmas 0 False, Field field_qualifier 2 False, Field field_variables 7 False]),
     (10737, [Field field_body 10 False, Field field_directives 7 False, Field field_implements 6 False, Field field_name 3 False, Field field_pragmas 0 False, Field field_qualifier 2 False, Field field_variables 8 False]),
     (10744, [Field field_body 10 False, Field field_directives 7 False, Field field_implements 6 False, Field field_method 9 False, Field field_name 3 False, Field field_pragmas 0 False, Field field_qualifier 2 False, Field field_variables 8 False]),
     (10752, [Field field_body 10 False, Field field_directives 7 False, Field field_implements 6 False, Field field_method 8 False, Field field_name 3 False, Field field_pragmas 0 False, Field field_qualifier 2 False]),
     (10759, [Field field_body 10 False, Field field_implements 6 False, Field field_name 3 False, Field field_pragmas 0 False, Field field_qualifier 2 False, Field field_variables 8 False]),
     (10765, [Field field_body 10 False, Field field_implements 6 False, Field field_method 9 False, Field field_name 3 False, Field field_pragmas 0 False, Field field_qualifier 2 False, Field field_variables 8 False]),
     (10772, [Field field_body 10 False, Field field_directives 8 False, Field field_implements 6 False, Field field_name 3 False, Field field_pragmas 0 False, Field field_qualifier 2 False]),
     (10778, [Field field_body 10 False, Field field_directives 8 False, Field field_implements 6 False, Field field_name 3 False, Field field_pragmas 0 False, Field field_qualifier 2 False, Field field_variables 9 False]),
     (10785, [Field field_directives 8 False, Field field_implements 6 False, Field field_method 10 False, Field field_name 3 False, Field field_pragmas 0 False, Field field_qualifier 2 False, Field field_variables 9 False])]"

text \<open>Lines 20453 to 20597.\<close>

definition ts_field_map_entries_90 :: "(nat \<times> TSFieldMapEntry list) list" where
  "ts_field_map_entries_90 =
    [(10792, [Field field_body 10 False, Field field_directives 8 False, Field field_implements 6 False, Field field_method 9 False, Field field_name 3 False, Field field_pragmas 0 False, Field field_qualifier 2 False]),
     (10799, [Field field_body 10 False, Field field_implements 6 False, Field field_method 8 False, Field field_name 3 False, Field field_pragmas 0 False, Field field_qualifier 2 False]),
     (10805, [Field field_body 10 False, Field field_extends 6 False, Field field_implements 8 False, Field field_name 3 False, Field field_pragmas 0 False, Field field_qualifier 2 False]),
     (10811, [Field field_body 10 False, Field field_extends 6 False, Field field_implements 8 False, Field field_name 3 False, Field field_pragmas 0 False, Field field_qualifier 2 False, Field field_variables 9 False]),
     (10818, [Field field_extends 6 False, Field field_implements 8 False, Field field_method 10 False, Field field_name 3 False, Field field_pragmas 0 False, Field field_qualifier 2 False, Field field_variables 9 False]),
     (10825, [Field field_body 10 False, Field field_directives 9 False, Field field_extends 6 False, Field field_implements 8 False, Field field_name 3 False, Field field_pragmas 0 False, Field field_qualifier 2 False]),
     (10832, [Field field_directives 9 False, Field field_extends 6 False, Field field_implements 8 False, Field field_name 3 False, Field field_pragmas 0 False, Field field_qualifier 2 False, Field field_variables 10 False]),
     (10839, [Field field_directives 9 False, Field field_extends 6 False, Field field_implements 8 False, Field field_method 10 False, Field field_name 3 False, Field field_pragmas 0 False, Field field_qualifier 2 False]),
     (10846, [Field field_extends 6 False, Field field_implements 8 False, Field field_name 3 False, Field field_pragmas 0 False, Field field_qualifier 2 False, Field field_variables 10 False]),
     (10852, [Field field_directives 10 False, Field field_extends 6 False, Field field_implements 8 False, Field field_name 3 False, Field field_pragmas 0 False, Field field_qualifier 2 False]),
     (10858, [Field field_extends 6 False, Field field_implements 8 False, Field field_method 10 False, Field field_name 3 False, Field field_pragmas 0 False, Field field_qualifier 2 False]),
     (10864, [Field field_body 10 False, Field field_extends 6 False, Field field_implements 8 False, Field field_method 9 False, Field field_name 3 False, Field field_pragmas 0 False, Field field_qualifier 2 False]),
     (10871, [Field field_body 10 False, Field field_extends 6 False, Field field_method 8 False, Field field_name 3 False, Field field_pragmas 0 False, Field field_qualifier 2 False, Field field_variables 7 False]),
     (10878, [Field field_body 10 False, Field field_directives 7 False, Field field_extends 6 False, Field field_name 3 False, Field field_pragmas 0 False, Field field_qualifier 2 False, Field field_variables 8 False]),
     (10885, [Field field_body 10 False, Field field_directives 7 False, Field field_extends 6 False, Field field_method 9 False, Field field_name 3 False, Field field_pragmas 0 False, Field field_qualifier 2 False, Field field_variables 8 False]),
     (10893, [Field field_body 10 False, Field field_directives 7 False, Field field_extends 6 False, Field field_method 8 False, Field field_name 3 False, Field field_pragmas 0 False, Field field_qualifier 2 False]),
     (10900, [Field field_body 10 False, Field field_extends 6 False, Field field_implements 9 False, Field field_name 3 False, Field field_pragmas 0 False, Field field_qualifier 2 False]),
     (10906, [Field field_extends 6 False, Field field_implements 9 False, Field field_name 3 False, Field field_pragmas 0 False, Field field_qualifier 2 False, Field field_variables 10 False]),
     (10912, [Field field_directives 10 False, Field field_extends 6 False, Field field_implements 9 False, Field field_name 3 False, Field field_pragmas 0 False, Field field_qualifier 2 False])]"

text \<open>Lines 20598 to 20743.\<close>

definition ts_field_map_entries_91 :: "(nat \<times> TSFieldMapEntry list) list" where
  "ts_field_map_entries_91 =
    [(10918, [Field field_extends 6 False, Field field_implements 9 False, Field field_method 10 False, Field field_name 3 False, Field field_pragmas 0 False, Field field_qualifier 2 False]),
     (10924, [Field field_body 10 False, Field field_extends 6 False, Field field_name 3 False, Field field_pragmas 0 False, Field field_qualifier 2 False, Field field_variables 8 False]),
     (10930, [Field field_body 10 False, Field field_extends 6 False, Field field_method 9 False, Field field_name 3 False, Field field_pragmas 0 False, Field field_qualifier 2 False, Field field_variables 8 False]),
     (10937, [Field field_body 10 False, Field field_directives 8 False, Field field_extends 6 False, Field field_name 3 False, Field field_pragmas 0 False, Field field_qualifier 2 False]),
     (10943, [Field field_body 10 False, Field field_directives 8 False, Field field_extends 6 False, Field field_name 3 False, Field field_pragmas 0 False, Field field_qualifier 2 False, Field field_variables 9 False]),
     (10950, [Field field_directives 8 False, Field field_extends 6 False, Field field_method 10 False, Field field_name 3 False, Field field_pragmas 0 False, Field field_qualifier 2 False, Field field_variables 9 False]),
     (10957, [Field field_body 10 False, Field field_directives 8 False, Field field_extends 6 False, Field field_method 9 False, Field field_name 3 False, Field field_pragmas 0 False, Field field_qualifier 2 False]),
     (10964, [Field field_body 10 False, Field field_extends 6 False, Field field_name 3 False, Field field_pragmas 0 False, Field field_qualifier 2 False]),
     (10969, [Field field_body 10 False, Field field_extends 6 False, Field field_name 3 False, Field field_pragmas 0 False, Field field_qualifier 2 False, Field field_variables 9 False]),
     (10975, [Field field_extends 6 False, Field field_method 10 False, Field field_name 3 False, Field field_pragmas 0 False, Field field_qualifier 2 False, Field field_variables 9 False]),
     (10981, [Field field_body 10 False, Field field_directives 9 False, Field field_extends 6 False, Field field_name 3 False, Field field_pragmas 0 False, Field field_qualifier 2 False]),
     (10987, [Field field_directives 9 False, Field field_extends 6 False, Field field_name 3 False, Field field_pragmas 0 False, Field field_qualifier 2 False, Field field_variables 10 False]),
     (10993, [Field field_directives 9 False, Field field_extends 6 False, Field field_method 10 False, Field field_name 3 False, Field field_pragmas 0 False, Field field_qualifier 2 False]),
     (10999, [Field field_body 10 False, Field field_extends 6 False, Field field_method 9 False, Field field_name 3 False, Field field_pragmas 0 False, Field field_qualifier 2 False]),
     (11005, [Field field_body 10 False, Field field_extends 6 False, Field field_method 8 False, Field field_name 3 False, Field field_pragmas 0 False, Field field_qualifier 2 False]),
     (11011, [Field field_body 10 False, Field field_implements 7 False, Field field_name 3 False, Field field_pragmas 0 False, Field field_qualifier 2 False, Field field_variables 8 False]),
     (11017, [Field field_body 10 False, Field field_implements 7 False, Field field_method 9 False, Field field_name 3 False, Field field_pragmas 0 False, Field field_qualifier 2 False, Field field_variables 8 False]),
     (11024, [Field field_body 10 False, Field field_directives 8 False, Field field_implements 7 False, Field field_name 3 False, Field field_pragmas 0 False, Field field_qualifier 2 False]),
     (11030, [Field field_body 10 False, Field field_directives 8 False, Field field_implements 7 False, Field field_name 3 False, Field field_pragmas 0 False, Field field_qualifier 2 False, Field field_variables 9 False]),
     (11037, [Field field_directives 8 False, Field field_implements 7 False, Field field_method 10 False, Field field_name 3 False, Field field_pragmas 0 False, Field field_qualifier 2 False, Field field_variables 9 False])]"

text \<open>Lines 20744 to 20891.\<close>

definition ts_field_map_entries_92 :: "(nat \<times> TSFieldMapEntry list) list" where
  "ts_field_map_entries_92 =
    [(11044, [Field field_body 10 False, Field field_directives 8 False, Field field_implements 7 False, Field field_method 9 False, Field field_name 3 False, Field field_pragmas 0 False, Field field_qualifier 2 False]),
     (11051, [Field field_body 10 False, Field field_implements 7 False, Field field_name 3 False, Field field_pragmas 0 False, Field field_qualifier 2 False]),
     (11056, [Field field_body 10 False, Field field_implements 7 False, Field field_name 3 False, Field field_pragmas 0 False, Field field_qualifier 2 False, Field field_variables 9 False]),
     (11062, [Field field_implements 7 False, Field field_method 10 False, Field field_name 3 False, Field field_pragmas 0 False, Field field_qualifier 2 False, Field field_variables 9 False]),
     (11068, [Field field_body 10 False, Field field_directives 9 False, Field field_implements 7 False, Field field_name 3 False, Field field_pragmas 0 False, Field field_qualifier 2 False]),
     (11074, [Field field_directives 9 False, Field field_implements 7 False, Field field_name 3 False, Field field_pragmas 0 False, Field field_qualifier 2 False, Field field_variables 10 False]),
     (11080, [Field field_directives 9 False, Field field_implements 7 False, Field field_method 10 False, Field field_name 3 False, Field field_pragmas 0 False, Field field_qualifier 2 False]),
     (11086, [Field field_body 10 False, Field field_implements 7 False, Field field_method 9 False, Field field_name 3 False, Field field_pragmas 0 False, Field field_qualifier 2 False]),
     (11092, [Field field_body 10 False, Field field_implements 7 False, Field field_method 8 False, Field field_name 3 False, Field field_pragmas 0 False, Field field_qualifier 2 False]),
     (11098, [Field field_body 10 False, Field field_directives 6 False, Field field_method 8 False, Field field_name 3 False, Field field_pragmas 0 False, Field field_qualifier 2 False, Field field_variables 7 False]),
     (11105, [Field field_body 10 False, Field field_method 8 False, Field field_name 3 False, Field field_pragmas 0 False, Field field_qualifier 2 False, Field field_variables 7 False]),
     (11111, [Field field_body 10 False, Field field_directives 7 False, Field field_name 3 False, Field field_pragmas 0 False, Field field_qualifier 2 False, Field field_variables 8 False]),
     (11117, [Field field_body 10 False, Field field_directives 7 False, Field field_method 9 False, Field field_name 3 False, Field field_pragmas 0 False, Field field_qualifier 2 False, Field field_variables 8 False]),
     (11124, [Field field_body 10 False, Field field_directives 7 False, Field field_method 8 False, Field field_name 3 False, Field field_pragmas 0 False, Field field_qualifier 2 False]),
     (11130, [Field field_body 10 False, Field field_directives 6 False, Field field_implements 4 False, Field field_method 8 False, Field field_name 2 False, Field field_pragmas 0 False, Field field_variables 7 False]),
     (11137, [Field field_body 10 False, Field field_extends 4 False, Field field_implements 6 False, Field field_method 8 False, Field field_name 2 False, Field field_pragmas 0 False, Field field_variables 7 False]),
     (11144, [Field field_body 10 False, Field field_directives 7 False, Field field_extends 4 False, Field field_implements 6 False, Field field_name 2 False, Field field_pragmas 0 False, Field field_variables 8 False]),
     (11151, [Field field_body 10 False, Field field_directives 7 False, Field field_extends 4 False, Field field_implements 6 False, Field field_method 9 False, Field field_name 2 False, Field field_pragmas 0 False, Field field_variables 8 False]),
     (11159, [Field field_body 10 False, Field field_directives 7 False, Field field_extends 4 False, Field field_implements 6 False, Field field_method 8 False, Field field_name 2 False, Field field_pragmas 0 False]),
     (11166, [Field field_body 10 False, Field field_extends 4 False, Field field_implements 6 False, Field field_name 2 False, Field field_pragmas 0 False, Field field_variables 8 False])]"

text \<open>Lines 20892 to 21038.\<close>

definition ts_field_map_entries_93 :: "(nat \<times> TSFieldMapEntry list) list" where
  "ts_field_map_entries_93 =
    [(11172, [Field field_body 10 False, Field field_extends 4 False, Field field_implements 6 False, Field field_method 9 False, Field field_name 2 False, Field field_pragmas 0 False, Field field_variables 8 False]),
     (11179, [Field field_body 10 False, Field field_directives 8 False, Field field_extends 4 False, Field field_implements 6 False, Field field_name 2 False, Field field_pragmas 0 False]),
     (11185, [Field field_body 10 False, Field field_directives 8 False, Field field_extends 4 False, Field field_implements 6 False, Field field_name 2 False, Field field_pragmas 0 False, Field field_variables 9 False]),
     (11192, [Field field_directives 8 False, Field field_extends 4 False, Field field_implements 6 False, Field field_method 10 False, Field field_name 2 False, Field field_pragmas 0 False, Field field_variables 9 False]),
     (11199, [Field field_body 10 False, Field field_directives 8 False, Field field_extends 4 False, Field field_implements 6 False, Field field_method 9 False, Field field_name 2 False, Field field_pragmas 0 False]),
     (11206, [Field field_body 10 False, Field field_extends 4 False, Field field_implements 6 False, Field field_method 8 False, Field field_name 2 False, Field field_pragmas 0 False]),
     (11212, [Field field_body 10 False, Field field_extends 4 False, Field field_implements 7 False, Field field_name 2 False, Field field_pragmas 0 False, Field field_variables 8 False]),
     (11218, [Field field_body 10 False, Field field_extends 4 False, Field field_implements 7 False, Field field_method 9 False, Field field_name 2 False, Field field_pragmas 0 False, Field field_variables 8 False]),
     (11225, [Field field_body 10 False, Field field_directives 8 False, Field field_extends 4 False, Field field_implements 7 False, Field field_name 2 False, Field field_pragmas 0 False]),
     (11231, [Field field_body 10 False, Field field_directives 8 False, Field field_extends 4 False, Field field_implements 7 False, Field field_name 2 False, Field field_pragmas 0 False, Field field_variables 9 False]),
     (11238, [Field field_directives 8 False, Field field_extends 4 False, Field field_implements 7 False, Field field_method 10 False, Field field_name 2 False, Field field_pragmas 0 False, Field field_variables 9 False]),
     (11245, [Field field_body 10 False, Field field_directives 8 False, Field field_extends 4 False, Field field_implements 7 False, Field field_method 9 False, Field field_name 2 False, Field field_pragmas 0 False]),
     (11252, [Field field_body 10 False, Field field_extends 4 False, Field field_implements 7 False, Field field_name 2 False, Field field_pragmas 0 False]),
     (11257, [Field field_body 10 False, Field field_extends 4 False, Field field_implements 7 False, Field field_name 2 False, Field field_pragmas 0 False, Field field_variables 9 False]),
     (11263, [Field field_extends 4 False, Field field_implements 7 False, Field field_method 10 False, Field field_name 2 False, Field field_pragmas 0 False, Field field_variables 9 False]),
     (11269, [Field field_body 10 False, Field field_directives 9 False, Field field_extends 4 False, Field field_implements 7 False, Field field_name 2 False, Field field_pragmas 0 False]),
     (11275, [Field field_directives 9 False, Field field_extends 4 False, Field field_implements 7 False, Field field_name 2 False, Field field_pragmas 0 False, Field field_variables 10 False]),
     (11281, [Field field_directives 9 False, Field field_extends 4 False, Field field_implements 7 False, Field field_method 10 False, Field field_name 2 False, Field field_pragmas 0 False]),
     (11287, [Field field_body 10 False, Field field_extends 4 False, Field field_implements 7 False, Field field_method 9 False, Field field_name 2 False, Field field_pragmas 0 False]),
     (11293, [Field field_body 10 False, Field field_extends 4 False, Field field_implements 7 False, Field field_method 8 False, Field field_name 2 False, Field field_pragmas 0 False])]"

text \<open>Lines 21039 to 21185.\<close>

definition ts_field_map_entries_94 :: "(nat \<times> TSFieldMapEntry list) list" where
  "ts_field_map_entries_94 =
    [(11299, [Field field_body 10 False, Field field_directives 6 False, Field field_extends 4 False, Field field_method 8 False, Field field_name 2 False, Field field_pragmas 0 False, Field field_variables 7 False]),
     (11306, [Field field_body 10 False, Field field_extends 4 False, Field field_method 8 False, Field field_name 2 False, Field field_pragmas 0 False, Field field_variables 7 False]),
     (11312, [Field field_body 10 False, Field field_directives 7 False, Field field_extends 4 False, Field field_name 2 False, Field field_pragmas 0 False, Field field_variables 8 False]),
     (11318, [Field field_body 10 False, Field field_directives 7 False, Field field_extends 4 False, Field field_method 9 False, Field field_name 2 False, Field field_pragmas 0 False, Field field_variables 8 False]),
     (11325, [Field field_body 10 False, Field field_directives 7 False, Field field_extends 4 False, Field field_method 8 False, Field field_name 2 False, Field field_pragmas 0 False]),
     (11331, [Field field_body 10 False, Field field_directives 6 False, Field field_implements 5 False, Field field_method 8 False, Field field_name 2 False, Field field_pragmas 0 False, Field field_variables 7 False]),
     (11338, [Field field_body 10 False, Field field_implements 5 False, Field field_method 8 False, Field field_name 2 False, Field field_pragmas 0 False, Field field_variables 7 False]),
     (11344, [Field field_body 10 False, Field field_directives 7 False, Field field_implements 5 False, Field field_name 2 False, Field field_pragmas 0 False, Field field_variables 8 False]),
     (11350, [Field field_body 10 False, Field field_directives 7 False, Field field_implements 5 False, Field field_method 9 False, Field field_name 2 False, Field field_pragmas 0 False, Field field_variables 8 False]),
     (11357, [Field field_body 10 False, Field field_directives 7 False, Field field_implements 5 False, Field field_method 8 False, Field field_name 2 False, Field field_pragmas 0 False]),
     (11363, [Field field_body 10 False, Field field_extends 5 False, Field field_implements 7 False, Field field_name 2 False, Field field_pragmas 0 False, Field field_variables 8 False]),
     (11369, [Field field_body 10 False, Field field_extends 5 False, Field field_implements 7 False, Field field_method 9 False, Field field_name 2 False, Field field_pragmas 0 False, Field field_variables 8 False]),
     (11376, [Field field_body 10 False, Field field_directives 8 False, Field field_extends 5 False, Field field_implements 7 False, Field field_name 2 False, Field field_pragmas 0 False]),
     (11382, [Field field_body 10 False, Field field_directives 8 False, Field field_extends 5 False, Field field_implements 7 False, Field field_name 2 False, Field field_pragmas 0 False, Field field_variables 9 False]),
     (11389, [Field field_directives 8 False, Field field_extends 5 False, Field field_implements 7 False, Field field_method 10 False, Field field_name 2 False, Field field_pragmas 0 False, Field field_variables 9 False]),
     (11396, [Field field_body 10 False, Field field_directives 8 False, Field field_extends 5 False, Field field_implements 7 False, Field field_method 9 False, Field field_name 2 False, Field field_pragmas 0 False]),
     (11403, [Field field_body 10 False, Field field_extends 5 False, Field field_implements 7 False, Field field_name 2 False, Field field_pragmas 0 False]),
     (11408, [Field field_body 10 False, Field field_extends 5 False, Field field_implements 7 False, Field field_name 2 False, Field field_pragmas 0 False, Field field_variables 9 False]),
     (11414, [Field field_extends 5 False, Field field_implements 7 False, Field field_method 10 False, Field field_name 2 False, Field field_pragmas 0 False, Field field_variables 9 False]),
     (11420, [Field field_body 10 False, Field field_directives 9 False, Field field_extends 5 False, Field field_implements 7 False, Field field_name 2 False, Field field_pragmas 0 False])]"

text \<open>Lines 21186 to 21335.\<close>

definition ts_field_map_entries_95 :: "(nat \<times> TSFieldMapEntry list) list" where
  "ts_field_map_entries_95 =
    [(11426, [Field field_directives 9 False, Field field_extends 5 False, Field field_implements 7 False, Field field_name 2 False, Field field_pragmas 0 False, Field field_variables 10 False]),
     (11432, [Field field_directives 9 False, Field field_extends 5 False, Field field_implements 7 False, Field field_method 10 False, Field field_name 2 False, Field field_pragmas 0 False]),
     (11438, [Field field_body 10 False, Field field_extends 5 False, Field field_implements 7 False, Field field_method 9 False, Field field_name 2 False, Field field_pragmas 0 False]),
     (11444, [Field field_body 10 False, Field field_extends 5 False, Field field_implements 7 False, Field field_method 8 False, Field field_name 2 False, Field field_pragmas 0 False]),
     (11450, [Field field_body 10 False, Field field_directives 6 False, Field field_extends 5 False, Field field_method 8 False, Field field_name 2 False, Field field_pragmas 0 False, Field field_variables 7 False]),
     (11457, [Field field_body 10 False, Field field_extends 5 False, Field field_implements 8 False, Field field_name 2 False, Field field_pragmas 0 False]),
     (11462, [Field field_body 10 False, Field field_extends 5 False, Field field_implements 8 False, Field field_name 2 False, Field field_pragmas 0 False, Field field_variables 9 False]),
     (11468, [Field field_extends 5 False, Field field_implements 8 False, Field field_method 10 False, Field field_name 2 False, Field field_pragmas 0 False, Field field_variables 9 False]),
     (11474, [Field field_body 10 False, Field field_directives 9 False, Field field_extends 5 False, Field field_implements 8 False, Field field_name 2 False, Field field_pragmas 0 False]),
     (11480, [Field field_directives 9 False, Field field_extends 5 False, Field field_implements 8 False, Field field_name 2 False, Field field_pragmas 0 False, Field field_variables 10 False]),
     (11486, [Field field_directives 9 False, Field field_extends 5 False, Field field_implements 8 False, Field field_method 10 False, Field field_name 2 False, Field field_pragmas 0 False]),
     (11492, [Field field_extends 5 False, Field field_implements 8 False, Field field_name 2 False, Field field_pragmas 0 False, Field field_variables 10 False]),
     (11497, [Field field_directives 10 False, Field field_extends 5 False, Field field_implements 8 False, Field field_name 2 False, Field field_pragmas 0 False]),
     (11502, [Field field_extends 5 False, Field field_implements 8 False, Field field_method 10 False, Field field_name 2 False, Field field_pragmas 0 False]),
     (11507, [Field field_body 10 False, Field field_extends 5 False, Field field_implements 8 False, Field field_method 9 False, Field field_name 2 False, Field field_pragmas 0 False]),
     (11513, [Field field_body 10 False, Field field_extends 5 False, Field field_method 8 False, Field field_name 2 False, Field field_pragmas 0 False, Field field_variables 7 False]),
     (11519, [Field field_body 10 False, Field field_directives 7 False, Field field_extends 5 False, Field field_name 2 False, Field field_pragmas 0 False, Field field_variables 8 False]),
     (11525, [Field field_body 10 False, Field field_directives 7 False, Field field_extends 5 False, Field field_method 9 False, Field field_name 2 False, Field field_pragmas 0 False, Field field_variables 8 False]),
     (11532, [Field field_body 10 False, Field field_directives 7 False, Field field_extends 5 False, Field field_method 8 False, Field field_name 2 False, Field field_pragmas 0 False]),
     (11538, [Field field_body 10 False, Field field_extends 5 False, Field field_name 2 False, Field field_pragmas 0 False, Field field_variables 8 False]),
     (11543, [Field field_body 10 False, Field field_extends 5 False, Field field_method 9 False, Field field_name 2 False, Field field_pragmas 0 False, Field field_variables 8 False]),
     (11549, [Field field_body 10 False, Field field_directives 8 False, Field field_extends 5 False, Field field_name 2 False, Field field_pragmas 0 False])]"

text \<open>Lines 21336 to 21478.\<close>

definition ts_field_map_entries_96 :: "(nat \<times> TSFieldMapEntry list) list" where
  "ts_field_map_entries_96 =
    [(11554, [Field field_body 10 False, Field field_directives 8 False, Field field_extends 5 False, Field field_name 2 False, Field field_pragmas 0 False, Field field_variables 9 False]),
     (11560, [Field field_directives 8 False, Field field_extends 5 False, Field field_method 10 False, Field field_name 2 False, Field field_pragmas 0 False, Field field_variables 9 False]),
     (11566, [Field field_body 10 False, Field field_directives 8 False, Field field_extends 5 False, Field field_method 9 False, Field field_name 2 False, Field field_pragmas 0 False]),
     (11572, [Field field_body 10 False, Field field_extends 5 False, Field field_method 8 False, Field field_name 2 False, Field field_pragmas 0 False]),
     (11577, [Field field_body 10 False, Field field_implements 6 False, Field field_method 8 False, Field field_name 2 False, Field field_pragmas 0 False, Field field_variables 7 False]),
     (11583, [Field field_body 10 False, Field field_directives 7 False, Field field_implements 6 False, Field field_name 2 False, Field field_pragmas 0 False, Field field_variables 8 False]),
     (11589, [Field field_body 10 False, Field field_directives 7 False, Field field_implements 6 False, Field field_method 9 False, Field field_name 2 False, Field field_pragmas 0 False, Field field_variables 8 False]),
     (11596, [Field field_body 10 False, Field field_directives 7 False, Field field_implements 6 False, Field field_method 8 False, Field field_name 2 False, Field field_pragmas 0 False]),
     (11602, [Field field_body 10 False, Field field_implements 6 False, Field field_name 2 False, Field field_pragmas 0 False, Field field_variables 8 False]),
     (11607, [Field field_body 10 False, Field field_implements 6 False, Field field_method 9 False, Field field_name 2 False, Field field_pragmas 0 False, Field field_variables 8 False]),
     (11613, [Field field_body 10 False, Field field_directives 8 False, Field field_implements 6 False, Field field_name 2 False, Field field_pragmas 0 False]),
     (11618, [Field field_body 10 False, Field field_directives 8 False, Field field_implements 6 False, Field field_name 2 False, Field field_pragmas 0 False, Field field_variables 9 False]),
     (11624, [Field field_directives 8 False, Field field_implements 6 False, Field field_method 10 False, Field field_name 2 False, Field field_pragmas 0 False, Field field_variables 9 False]),
     (11630, [Field field_body 10 False, Field field_directives 8 False, Field field_implements 6 False, Field field_method 9 False, Field field_name 2 False, Field field_pragmas 0 False]),
     (11636, [Field field_body 10 False, Field field_implements 6 False, Field field_method 8 False, Field field_name 2 False, Field field_pragmas 0 False]),
     (11641, [Field field_body 10 False, Field field_directives 6 False, Field field_method 8 False, Field field_name 2 False, Field field_pragmas 0 False, Field field_variables 7 False]),
     (11647, [Field field__override 4 False, Field field_access 2 False, Field field_body 9 False, Field field_modifier 3 False, Field field_name 5 False, Field field_pragmas 0 False, Field field_return_type 7 False, Field field_variables 8 False]),
     (11655, [Field field_body 11 False, Field field_directives 7 False, Field field_extends 4 False, Field field_implements 6 False, Field field_method 9 False, Field field_name 2 False, Field field_qualifier 1 False, Field field_variables 8 False]),
     (11663, [Field field_body 11 False, Field field_extends 4 False, Field field_implements 6 False, Field field_method 9 False, Field field_name 2 False, Field field_qualifier 1 False, Field field_variables 8 False]),
     (11670, [Field field_body 11 False, Field field_directives 8 False, Field field_extends 4 False, Field field_implements 6 False, Field field_name 2 False, Field field_qualifier 1 False, Field field_variables 9 False])]"

text \<open>Lines 21479 to 21622.\<close>

definition ts_field_map_entries_97 :: "(nat \<times> TSFieldMapEntry list) list" where
  "ts_field_map_entries_97 =
    [(11677, [Field field_body 11 False, Field field_directives 8 False, Field field_extends 4 False, Field field_implements 6 False, Field field_method 10 False, Field field_name 2 False, Field field_qualifier 1 False, Field field_variables 9 False]),
     (11685, [Field field_body 11 False, Field field_directives 8 False, Field field_extends 4 False, Field field_implements 6 False, Field field_method 9 False, Field field_name 2 False, Field field_qualifier 1 False]),
     (11692, [Field field_body 11 False, Field field_extends 4 False, Field field_implements 7 False, Field field_method 9 False, Field field_name 2 False, Field field_qualifier 1 False, Field field_variables 8 False]),
     (11699, [Field field_body 11 False, Field field_directives 8 False, Field field_extends 4 False, Field field_implements 7 False, Field field_name 2 False, Field field_qualifier 1 False, Field field_variables 9 False]),
     (11706, [Field field_body 11 False, Field field_directives 8 False, Field field_extends 4 False, Field field_implements 7 False, Field field_method 10 False, Field field_name 2 False, Field field_qualifier 1 False, Field field_variables 9 False]),
     (11714, [Field field_body 11 False, Field field_directives 8 False, Field field_extends 4 False, Field field_implements 7 False, Field field_method 9 False, Field field_name 2 False, Field field_qualifier 1 False]),
     (11721, [Field field_body 11 False, Field field_extends 4 False, Field field_implements 7 False, Field field_name 2 False, Field field_qualifier 1 False, Field field_variables 9 False]),
     (11727, [Field field_body 11 False, Field field_extends 4 False, Field field_implements 7 False, Field field_method 10 False, Field field_name 2 False, Field field_qualifier 1 False, Field field_variables 9 False]),
     (11734, [Field field_body 11 False, Field field_directives 9 False, Field field_extends 4 False, Field field_implements 7 False, Field field_name 2 False, Field field_qualifier 1 False]),
     (11740, [Field field_body 11 False, Field field_directives 9 False, Field field_extends 4 False, Field field_implements 7 False, Field field_name 2 False, Field field_qualifier 1 False, Field field_variables 10 False]),
     (11747, [Field field_directives 9 False, Field field_extends 4 False, Field field_implements 7 False, Field field_method 11 False, Field field_name 2 False, Field field_qualifier 1 False, Field field_variables 10 False]),
     (11754, [Field field_body 11 False, Field field_directives 9 False, Field field_extends 4 False, Field field_implements 7 False, Field field_method 10 False, Field field_name 2 False, Field field_qualifier 1 False]),
     (11761, [Field field_body 11 False, Field field_extends 4 False, Field field_implements 7 False, Field field_method 9 False, Field field_name 2 False, Field field_qualifier 1 False]),
     (11767, [Field field_body 11 False, Field field_directives 7 False, Field field_extends 4 False, Field field_method 9 False, Field field_name 2 False, Field field_qualifier 1 False, Field field_variables 8 False]),
     (11774, [Field field_body 11 False, Field field_directives 7 False, Field field_implements 5 False, Field field_method 9 False, Field field_name 2 False, Field field_qualifier 1 False, Field field_variables 8 False]),
     (11781, [Field field_body 11 False, Field field_extends 5 False, Field field_implements 7 False, Field field_method 9 False, Field field_name 2 False, Field field_qualifier 1 False, Field field_variables 8 False]),
     (11788, [Field field_body 11 False, Field field_directives 8 False, Field field_extends 5 False, Field field_implements 7 False, Field field_name 2 False, Field field_qualifier 1 False, Field field_variables 9 False]),
     (11795, [Field field_body 11 False, Field field_directives 8 False, Field field_extends 5 False, Field field_implements 7 False, Field field_method 10 False, Field field_name 2 False, Field field_qualifier 1 False, Field field_variables 9 False])]"

text \<open>Lines 21623 to 21770.\<close>

definition ts_field_map_entries_98 :: "(nat \<times> TSFieldMapEntry list) list" where
  "ts_field_map_entries_98 =
    [(11803, [Field field_body 11 False, Field field_directives 8 False, Field field_extends 5 False, Field field_implements 7 False, Field field_method 9 False, Field field_name 2 False, Field field_qualifier 1 False]),
     (11810, [Field field_body 11 False, Field field_extends 5 False, Field field_implements 7 False, Field field_name 2 False, Field field_qualifier 1 False, Field field_variables 9 False]),
     (11816, [Field field_body 11 False, Field field_extends 5 False, Field field_implements 7 False, Field field_method 10 False, Field field_name 2 False, Field field_qualifier 1 False, Field field_variables 9 False]),
     (11823, [Field field_body 11 False, Field field_directives 9 False, Field field_extends 5 False, Field field_implements 7 False, Field field_name 2 False, Field field_qualifier 1 False]),
     (11829, [Field field_body 11 False, Field field_directives 9 False, Field field_extends 5 False, Field field_implements 7 False, Field field_name 2 False, Field field_qualifier 1 False, Field field_variables 10 False]),
     (11836, [Field field_directives 9 False, Field field_extends 5 False, Field field_implements 7 False, Field field_method 11 False, Field field_name 2 False, Field field_qualifier 1 False, Field field_variables 10 False]),
     (11843, [Field field_body 11 False, Field field_directives 9 False, Field field_extends 5 False, Field field_implements 7 False, Field field_method 10 False, Field field_name 2 False, Field field_qualifier 1 False]),
     (11850, [Field field_body 11 False, Field field_extends 5 False, Field field_implements 7 False, Field field_method 9 False, Field field_name 2 False, Field field_qualifier 1 False]),
     (11856, [Field field_body 11 False, Field field_extends 5 False, Field field_implements 8 False, Field field_name 2 False, Field field_qualifier 1 False, Field field_variables 9 False]),
     (11862, [Field field_body 11 False, Field field_extends 5 False, Field field_implements 8 False, Field field_method 10 False, Field field_name 2 False, Field field_qualifier 1 False, Field field_variables 9 False]),
     (11869, [Field field_body 11 False, Field field_directives 9 False, Field field_extends 5 False, Field field_implements 8 False, Field field_name 2 False, Field field_qualifier 1 False]),
     (11875, [Field field_body 11 False, Field field_directives 9 False, Field field_extends 5 False, Field field_implements 8 False, Field field_name 2 False, Field field_qualifier 1 False, Field field_variables 10 False]),
     (11882, [Field field_directives 9 False, Field field_extends 5 False, Field field_implements 8 False, Field field_method 11 False, Field field_name 2 False, Field field_qualifier 1 False, Field field_variables 10 False]),
     (11889, [Field field_body 11 False, Field field_directives 9 False, Field field_extends 5 False, Field field_implements 8 False, Field field_method 10 False, Field field_name 2 False, Field field_qualifier 1 False]),
     (11896, [Field field_body 11 False, Field field_extends 5 False, Field field_implements 8 False, Field field_name 2 False, Field field_qualifier 1 False]),
     (11901, [Field field_body 11 False, Field field_extends 5 False, Field field_implements 8 False, Field field_name 2 False, Field field_qualifier 1 False, Field field_variables 10 False]),
     (11907, [Field field_extends 5 False, Field field_implements 8 False, Field field_method 11 False, Field field_name 2 False, Field field_qualifier 1 False, Field field_variables 10 False]),
     (11913, [Field field_body 11 False, Field field_directives 10 False, Field field_extends 5 False, Field field_implements 8 False, Field field_name 2 False, Field field_qualifier 1 False]),
     (11919, [Field field_directives 10 False, Field field_extends 5 False, Field field_implements 8 False, Field field_name 2 False, Field field_qualifier 1 False, Field field_variables 11 False]),
     (11925, [Field field_directives 10 False, Field field_extends 5 False, Field field_implements 8 False, Field field_method 11 False, Field field_name 2 False, Field field_qualifier 1 False])]"

text \<open>Lines 21771 to 21918.\<close>

definition ts_field_map_entries_99 :: "(nat \<times> TSFieldMapEntry list) list" where
  "ts_field_map_entries_99 =
    [(11931, [Field field_body 11 False, Field field_extends 5 False, Field field_implements 8 False, Field field_method 10 False, Field field_name 2 False, Field field_qualifier 1 False]),
     (11937, [Field field_body 11 False, Field field_extends 5 False, Field field_implements 8 False, Field field_method 9 False, Field field_name 2 False, Field field_qualifier 1 False]),
     (11943, [Field field_body 11 False, Field field_directives 7 False, Field field_extends 5 False, Field field_method 9 False, Field field_name 2 False, Field field_qualifier 1 False, Field field_variables 8 False]),
     (11950, [Field field_body 11 False, Field field_extends 5 False, Field field_method 9 False, Field field_name 2 False, Field field_qualifier 1 False, Field field_variables 8 False]),
     (11956, [Field field_body 11 False, Field field_directives 8 False, Field field_extends 5 False, Field field_name 2 False, Field field_qualifier 1 False, Field field_variables 9 False]),
     (11962, [Field field_body 11 False, Field field_directives 8 False, Field field_extends 5 False, Field field_method 10 False, Field field_name 2 False, Field field_qualifier 1 False, Field field_variables 9 False]),
     (11969, [Field field_body 11 False, Field field_directives 8 False, Field field_extends 5 False, Field field_method 9 False, Field field_name 2 False, Field field_qualifier 1 False]),
     (11975, [Field field_body 11 False, Field field_directives 7 False, Field field_implements 6 False, Field field_method 9 False, Field field_name 2 False, Field field_qualifier 1 False, Field field_variables 8 False]),
     (11982, [Field field_body 11 False, Field field_implements 6 False, Field field_method 9 False, Field field_name 2 False, Field field_qualifier 1 False, Field field_variables 8 False]),
     (11988, [Field field_body 11 False, Field field_directives 8 False, Field field_implements 6 False, Field field_name 2 False, Field field_qualifier 1 False, Field field_variables 9 False]),
     (11994, [Field field_body 11 False, Field field_directives 8 False, Field field_implements 6 False, Field field_method 10 False, Field field_name 2 False, Field field_qualifier 1 False, Field field_variables 9 False]),
     (12001, [Field field_body 11 False, Field field_directives 8 False, Field field_implements 6 False, Field field_method 9 False, Field field_name 2 False, Field field_qualifier 1 False]),
     (12007, [Field field_body 11 False, Field field_directives 7 False, Field field_extends 3 False, Field field_implements 5 False, Field field_method 9 False, Field field_name 1 False, Field field_variables 8 False]),
     (12014, [Field field_body 11 False, Field field_directives 7 False, Field field_extends 3 False, Field field_implements 6 False, Field field_method 9 False, Field field_name 1 False, Field field_variables 8 False]),
     (12021, [Field field_body 11 False, Field field_extends 3 False, Field field_implements 6 False, Field field_method 9 False, Field field_name 1 False, Field field_variables 8 False]),
     (12027, [Field field_body 11 False, Field field_directives 8 False, Field field_extends 3 False, Field field_implements 6 False, Field field_name 1 False, Field field_variables 9 False]),
     (12033, [Field field_body 11 False, Field field_directives 8 False, Field field_extends 3 False, Field field_implements 6 False, Field field_method 10 False, Field field_name 1 False, Field field_variables 9 False]),
     (12040, [Field field_body 11 False, Field field_directives 8 False, Field field_extends 3 False, Field field_implements 6 False, Field field_method 9 False, Field field_name 1 False]),
     (12046, [Field field_body 11 False, Field field_directives 7 False, Field field_extends 4 False, Field field_implements 6 False, Field field_method 9 False, Field field_name 1 False, Field field_variables 8 False]),
     (12053, [Field field_body 11 False, Field field_extends 4 False, Field field_implements 6 False, Field field_method 9 False, Field field_name 1 False, Field field_variables 8 False])]"

text \<open>Lines 21919 to 22067.\<close>

definition ts_field_map_entries_100 :: "(nat \<times> TSFieldMapEntry list) list" where
  "ts_field_map_entries_100 =
    [(12059, [Field field_body 11 False, Field field_directives 8 False, Field field_extends 4 False, Field field_implements 6 False, Field field_name 1 False, Field field_variables 9 False]),
     (12065, [Field field_body 11 False, Field field_directives 8 False, Field field_extends 4 False, Field field_implements 6 False, Field field_method 10 False, Field field_name 1 False, Field field_variables 9 False]),
     (12072, [Field field_body 11 False, Field field_directives 8 False, Field field_extends 4 False, Field field_implements 6 False, Field field_method 9 False, Field field_name 1 False]),
     (12078, [Field field_body 11 False, Field field_extends 4 False, Field field_implements 7 False, Field field_method 9 False, Field field_name 1 False, Field field_variables 8 False]),
     (12084, [Field field_body 11 False, Field field_directives 8 False, Field field_extends 4 False, Field field_implements 7 False, Field field_name 1 False, Field field_variables 9 False]),
     (12090, [Field field_body 11 False, Field field_directives 8 False, Field field_extends 4 False, Field field_implements 7 False, Field field_method 10 False, Field field_name 1 False, Field field_variables 9 False]),
     (12097, [Field field_body 11 False, Field field_directives 8 False, Field field_extends 4 False, Field field_implements 7 False, Field field_method 9 False, Field field_name 1 False]),
     (12103, [Field field_body 11 False, Field field_extends 4 False, Field field_implements 7 False, Field field_name 1 False, Field field_variables 9 False]),
     (12108, [Field field_body 11 False, Field field_extends 4 False, Field field_implements 7 False, Field field_method 10 False, Field field_name 1 False, Field field_variables 9 False]),
     (12114, [Field field_body 11 False, Field field_directives 9 False, Field field_extends 4 False, Field field_implements 7 False, Field field_name 1 False]),
     (12119, [Field field_body 11 False, Field field_directives 9 False, Field field_extends 4 False, Field field_implements 7 False, Field field_name 1 False, Field field_variables 10 False]),
     (12125, [Field field_directives 9 False, Field field_extends 4 False, Field field_implements 7 False, Field field_method 11 False, Field field_name 1 False, Field field_variables 10 False]),
     (12131, [Field field_body 11 False, Field field_directives 9 False, Field field_extends 4 False, Field field_implements 7 False, Field field_method 10 False, Field field_name 1 False]),
     (12137, [Field field_body 11 False, Field field_extends 4 False, Field field_implements 7 False, Field field_method 9 False, Field field_name 1 False]),
     (12142, [Field field_body 11 False, Field field_directives 7 False, Field field_extends 4 False, Field field_method 9 False, Field field_name 1 False, Field field_variables 8 False]),
     (12148, [Field field_body 11 False, Field field_directives 7 False, Field field_implements 5 False, Field field_method 9 False, Field field_name 1 False, Field field_variables 8 False]),
     (12154, [Field field_extends 5 False, Field field_implements 8 False, Field field_methods 11 False, Field field_modifier 1 False, Field field_name 2 False, Field field_variables 10 False]),
     (12160, [Field field_directives 3 False, Field field_extends 5 False, Field field_implements 8 False, Field field_methods 11 False, Field field_modifier 1 False, Field field_name 2 False, Field field_variables 10 False]),
     (12167, [Field field_directives 3 False, Field field_extends 6 False, Field field_implements 8 False, Field field_methods 11 False, Field field_modifier 1 False, Field field_name 2 False, Field field_variables 10 False]),
     (12174, [Field field_directives 3 False, Field field_extends 6 False, Field field_implements 9 False, Field field_methods 11 False, Field field_modifier 1 False, Field field_name 2 False, Field field_variables 10 False]),
     (12181, [Field field_directives 3 False, Field field_extends 6 False, Field field_implements 9 False, Field field_modifier 1 False, Field field_name 2 False, Field field_variables 11 False])]"

text \<open>Lines 22068 to 22213.\<close>

definition ts_field_map_entries_101 :: "(nat \<times> TSFieldMapEntry list) list" where
  "ts_field_map_entries_101 =
    [(12187, [Field field_directives 3 False, Field field_extends 6 False, Field field_implements 9 False, Field field_methods 11 False, Field field_modifier 1 False, Field field_name 2 False]),
     (12193, [Field field_directives 2 False, Field field_extends 5 False, Field field_implements 8 False, Field field_methods 11 False, Field field_name 1 False, Field field_variables 10 False]),
     (12199, [Field field_interval 7 False, Field field_single 3 False]),
     (12201, [Field field_priority 7 False, Field field_single 3 False]),
     (12203, [Field field_interval 3 False, Field field_priority 7 False]),
     (12205, [Field field_body 11 False, Field field_directives 7 False, Field field_implements 5 False, Field field_method 9 False, Field field_name 3 False, Field field_pragmas 0 False, Field field_qualifier 2 False, Field field_variables 8 False]),
     (12213, [Field field_body 11 False, Field field_extends 5 False, Field field_implements 7 False, Field field_method 9 False, Field field_name 3 False, Field field_pragmas 0 False, Field field_qualifier 2 False, Field field_variables 8 False]),
     (12221, [Field field_body 11 False, Field field_directives 8 False, Field field_extends 5 False, Field field_implements 7 False, Field field_name 3 False, Field field_pragmas 0 False, Field field_qualifier 2 False, Field field_variables 9 False]),
     (12229, [Field field_body 11 False, Field field_directives 8 False, Field field_extends 5 False, Field field_implements 7 False, Field field_method 10 False, Field field_name 3 False, Field field_pragmas 0 False, Field field_qualifier 2 False, Field field_variables 9 False]),
     (12238, [Field field_body 11 False, Field field_directives 8 False, Field field_extends 5 False, Field field_implements 7 False, Field field_method 9 False, Field field_name 3 False, Field field_pragmas 0 False, Field field_qualifier 2 False]),
     (12246, [Field field_body 11 False, Field field_extends 5 False, Field field_implements 7 False, Field field_name 3 False, Field field_pragmas 0 False, Field field_qualifier 2 False, Field field_variables 9 False]),
     (12253, [Field field_body 11 False, Field field_extends 5 False, Field field_implements 7 False, Field field_method 10 False, Field field_name 3 False, Field field_pragmas 0 False, Field field_qualifier 2 False, Field field_variables 9 False]),
     (12261, [Field field_body 11 False, Field field_directives 9 False, Field field_extends 5 False, Field field_implements 7 False, Field field_name 3 False, Field field_pragmas 0 False, Field field_qualifier 2 False]),
     (12268, [Field field_body 11 False, Field field_directives 9 False, Field field_extends 5 False, Field field_implements 7 False, Field field_name 3 False, Field field_pragmas 0 False, Field field_qualifier 2 False, Field field_variables 10 False]),
     (12276, [Field field_directives 9 False, Field field_extends 5 False, Field field_implements 7 False, Field field_method 11 False, Field field_name 3 False, Field field_pragmas 0 False, Field field_qualifier 2 False, Field field_variables 10 False]),
     (12284, [Field field_body 11 False, Field field_directives 9 False, Field field_extends 5 False, Field field_implements 7 False, Field field_method 10 False, Field field_name 3 False, Field field_pragmas 0 False, Field field_qualifier 2 False]),
     (12292, [Field field_body 11 False, Field field_extends 5 False, Field field_implements 7 False, Field field_method 9 False, Field field_name 3 False, Field field_pragmas 0 False, Field field_qualifier 2 False]),
     (12299, [Field field_body 11 False, Field field_extends 5 False, Field field_implements 8 False, Field field_name 3 False, Field field_pragmas 0 False, Field field_qualifier 2 False, Field field_variables 9 False]),
     (12306, [Field field_body 11 False, Field field_extends 5 False, Field field_implements 8 False, Field field_method 10 False, Field field_name 3 False, Field field_pragmas 0 False, Field field_qualifier 2 False, Field field_variables 9 False])]"

text \<open>Lines 22214 to 22362.\<close>

definition ts_field_map_entries_102 :: "(nat \<times> TSFieldMapEntry list) list" where
  "ts_field_map_entries_102 =
    [(12314, [Field field_body 11 False, Field field_directives 9 False, Field field_extends 5 False, Field field_implements 8 False, Field field_name 3 False, Field field_pragmas 0 False, Field field_qualifier 2 False]),
     (12321, [Field field_body 11 False, Field field_directives 9 False, Field field_extends 5 False, Field field_implements 8 False, Field field_name 3 False, Field field_pragmas 0 False, Field field_qualifier 2 False, Field field_variables 10 False]),
     (12329, [Field field_directives 9 False, Field field_extends 5 False, Field field_implements 8 False, Field field_method 11 False, Field field_name 3 False, Field field_pragmas 0 False, Field field_qualifier 2 False, Field field_variables 10 False]),
     (12337, [Field field_body 11 False, Field field_directives 9 False, Field field_extends 5 False, Field field_implements 8 False, Field field_method 10 False, Field field_name 3 False, Field field_pragmas 0 False, Field field_qualifier 2 False]),
     (12345, [Field field_body 11 False, Field field_extends 5 False, Field field_implements 8 False, Field field_name 3 False, Field field_pragmas 0 False, Field field_qualifier 2 False]),
     (12351, [Field field_body 11 False, Field field_extends 5 False, Field field_implements 8 False, Field field_name 3 False, Field field_pragmas 0 False, Field field_qualifier 2 False, Field field_variables 10 False]),
     (12358, [Field field_extends 5 False, Field field_implements 8 False, Field field_method 11 False, Field field_name 3 False, Field field_pragmas 0 False, Field field_qualifier 2 False, Field field_variables 10 False]),
     (12365, [Field field_body 11 False, Field field_directives 10 False, Field field_extends 5 False, Field field_implements 8 False, Field field_name 3 False, Field field_pragmas 0 False, Field field_qualifier 2 False]),
     (12372, [Field field_directives 10 False, Field field_extends 5 False, Field field_implements 8 False, Field field_name 3 False, Field field_pragmas 0 False, Field field_qualifier 2 False, Field field_variables 11 False]),
     (12379, [Field field_directives 10 False, Field field_extends 5 False, Field field_implements 8 False, Field field_method 11 False, Field field_name 3 False, Field field_pragmas 0 False, Field field_qualifier 2 False]),
     (12386, [Field field_body 11 False, Field field_extends 5 False, Field field_implements 8 False, Field field_method 10 False, Field field_name 3 False, Field field_pragmas 0 False, Field field_qualifier 2 False]),
     (12393, [Field field_body 11 False, Field field_extends 5 False, Field field_implements 8 False, Field field_method 9 False, Field field_name 3 False, Field field_pragmas 0 False, Field field_qualifier 2 False]),
     (12400, [Field field_body 11 False, Field field_directives 7 False, Field field_extends 5 False, Field field_method 9 False, Field field_name 3 False, Field field_pragmas 0 False, Field field_qualifier 2 False, Field field_variables 8 False]),
     (12408, [Field field_body 11 False, Field field_extends 5 False, Field field_method 9 False, Field field_name 3 False, Field field_pragmas 0 False, Field field_qualifier 2 False, Field field_variables 8 False]),
     (12415, [Field field_body 11 False, Field field_directives 8 False, Field field_extends 5 False, Field field_name 3 False, Field field_pragmas 0 False, Field field_qualifier 2 False, Field field_variables 9 False]),
     (12422, [Field field_body 11 False, Field field_directives 8 False, Field field_extends 5 False, Field field_method 10 False, Field field_name 3 False, Field field_pragmas 0 False, Field field_qualifier 2 False, Field field_variables 9 False]),
     (12430, [Field field_body 11 False, Field field_directives 8 False, Field field_extends 5 False, Field field_method 9 False, Field field_name 3 False, Field field_pragmas 0 False, Field field_qualifier 2 False]),
     (12437, [Field field_body 11 False, Field field_directives 7 False, Field field_implements 6 False, Field field_method 9 False, Field field_name 3 False, Field field_pragmas 0 False, Field field_qualifier 2 False, Field field_variables 8 False])]"

text \<open>Lines 22363 to 22510.\<close>

definition ts_field_map_entries_103 :: "(nat \<times> TSFieldMapEntry list) list" where
  "ts_field_map_entries_103 =
    [(12445, [Field field_body 11 False, Field field_implements 6 False, Field field_method 9 False, Field field_name 3 False, Field field_pragmas 0 False, Field field_qualifier 2 False, Field field_variables 8 False]),
     (12452, [Field field_body 11 False, Field field_directives 8 False, Field field_implements 6 False, Field field_name 3 False, Field field_pragmas 0 False, Field field_qualifier 2 False, Field field_variables 9 False]),
     (12459, [Field field_body 11 False, Field field_directives 8 False, Field field_implements 6 False, Field field_method 10 False, Field field_name 3 False, Field field_pragmas 0 False, Field field_qualifier 2 False, Field field_variables 9 False]),
     (12467, [Field field_body 11 False, Field field_directives 8 False, Field field_implements 6 False, Field field_method 9 False, Field field_name 3 False, Field field_pragmas 0 False, Field field_qualifier 2 False]),
     (12474, [Field field_body 11 False, Field field_extends 6 False, Field field_implements 8 False, Field field_name 3 False, Field field_pragmas 0 False, Field field_qualifier 2 False, Field field_variables 9 False]),
     (12481, [Field field_body 11 False, Field field_extends 6 False, Field field_implements 8 False, Field field_method 10 False, Field field_name 3 False, Field field_pragmas 0 False, Field field_qualifier 2 False, Field field_variables 9 False]),
     (12489, [Field field_body 11 False, Field field_directives 9 False, Field field_extends 6 False, Field field_implements 8 False, Field field_name 3 False, Field field_pragmas 0 False, Field field_qualifier 2 False]),
     (12496, [Field field_body 11 False, Field field_directives 9 False, Field field_extends 6 False, Field field_implements 8 False, Field field_name 3 False, Field field_pragmas 0 False, Field field_qualifier 2 False, Field field_variables 10 False]),
     (12504, [Field field_directives 9 False, Field field_extends 6 False, Field field_implements 8 False, Field field_method 11 False, Field field_name 3 False, Field field_pragmas 0 False, Field field_qualifier 2 False, Field field_variables 10 False]),
     (12512, [Field field_body 11 False, Field field_directives 9 False, Field field_extends 6 False, Field field_implements 8 False, Field field_method 10 False, Field field_name 3 False, Field field_pragmas 0 False, Field field_qualifier 2 False]),
     (12520, [Field field_body 11 False, Field field_extends 6 False, Field field_implements 8 False, Field field_name 3 False, Field field_pragmas 0 False, Field field_qualifier 2 False]),
     (12526, [Field field_body 11 False, Field field_extends 6 False, Field field_implements 8 False, Field field_name 3 False, Field field_pragmas 0 False, Field field_qualifier 2 False, Field field_variables 10 False]),
     (12533, [Field field_extends 6 False, Field field_implements 8 False, Field field_method 11 False, Field field_name 3 False, Field field_pragmas 0 False, Field field_qualifier 2 False, Field field_variables 10 False]),
     (12540, [Field field_body 11 False, Field field_directives 10 False, Field field_extends 6 False, Field field_implements 8 False, Field field_name 3 False, Field field_pragmas 0 False, Field field_qualifier 2 False]),
     (12547, [Field field_directives 10 False, Field field_extends 6 False, Field field_implements 8 False, Field field_name 3 False, Field field_pragmas 0 False, Field field_qualifier 2 False, Field field_variables 11 False]),
     (12554, [Field field_directives 10 False, Field field_extends 6 False, Field field_implements 8 False, Field field_method 11 False, Field field_name 3 False, Field field_pragmas 0 False, Field field_qualifier 2 False]),
     (12561, [Field field_body 11 False, Field field_extends 6 False, Field field_implements 8 False, Field field_method 10 False, Field field_name 3 False, Field field_pragmas 0 False, Field field_qualifier 2 False]),
     (12568, [Field field_body 11 False, Field field_extends 6 False, Field field_implements 8 False, Field field_method 9 False, Field field_name 3 False, Field field_pragmas 0 False, Field field_qualifier 2 False])]"

text \<open>Lines 22511 to 22658.\<close>

definition ts_field_map_entries_104 :: "(nat \<times> TSFieldMapEntry list) list" where
  "ts_field_map_entries_104 =
    [(12575, [Field field_body 11 False, Field field_directives 7 False, Field field_extends 6 False, Field field_method 9 False, Field field_name 3 False, Field field_pragmas 0 False, Field field_qualifier 2 False, Field field_variables 8 False]),
     (12583, [Field field_body 11 False, Field field_extends 6 False, Field field_implements 9 False, Field field_name 3 False, Field field_pragmas 0 False, Field field_qualifier 2 False]),
     (12589, [Field field_body 11 False, Field field_extends 6 False, Field field_implements 9 False, Field field_name 3 False, Field field_pragmas 0 False, Field field_qualifier 2 False, Field field_variables 10 False]),
     (12596, [Field field_extends 6 False, Field field_implements 9 False, Field field_method 11 False, Field field_name 3 False, Field field_pragmas 0 False, Field field_qualifier 2 False, Field field_variables 10 False]),
     (12603, [Field field_body 11 False, Field field_directives 10 False, Field field_extends 6 False, Field field_implements 9 False, Field field_name 3 False, Field field_pragmas 0 False, Field field_qualifier 2 False]),
     (12610, [Field field_directives 10 False, Field field_extends 6 False, Field field_implements 9 False, Field field_name 3 False, Field field_pragmas 0 False, Field field_qualifier 2 False, Field field_variables 11 False]),
     (12617, [Field field_directives 10 False, Field field_extends 6 False, Field field_implements 9 False, Field field_method 11 False, Field field_name 3 False, Field field_pragmas 0 False, Field field_qualifier 2 False]),
     (12624, [Field field_extends 6 False, Field field_implements 9 False, Field field_name 3 False, Field field_pragmas 0 False, Field field_qualifier 2 False, Field field_variables 11 False]),
     (12630, [Field field_directives 11 False, Field field_extends 6 False, Field field_implements 9 False, Field field_name 3 False, Field field_pragmas 0 False, Field field_qualifier 2 False]),
     (12636, [Field field_extends 6 False, Field field_implements 9 False, Field field_method 11 False, Field field_name 3 False, Field field_pragmas 0 False, Field field_qualifier 2 False]),
     (12642, [Field field_body 11 False, Field field_extends 6 False, Field field_implements 9 False, Field field_method 10 False, Field field_name 3 False, Field field_pragmas 0 False, Field field_qualifier 2 False]),
     (12649, [Field field_body 11 False, Field field_extends 6 False, Field field_method 9 False, Field field_name 3 False, Field field_pragmas 0 False, Field field_qualifier 2 False, Field field_variables 8 False]),
     (12656, [Field field_body 11 False, Field field_directives 8 False, Field field_extends 6 False, Field field_name 3 False, Field field_pragmas 0 False, Field field_qualifier 2 False, Field field_variables 9 False]),
     (12663, [Field field_body 11 False, Field field_directives 8 False, Field field_extends 6 False, Field field_method 10 False, Field field_name 3 False, Field field_pragmas 0 False, Field field_qualifier 2 False, Field field_variables 9 False]),
     (12671, [Field field_body 11 False, Field field_directives 8 False, Field field_extends 6 False, Field field_method 9 False, Field field_name 3 False, Field field_pragmas 0 False, Field field_qualifier 2 False]),
     (12678, [Field field_body 11 False, Field field_extends 6 False, Field field_name 3 False, Field field_pragmas 0 False, Field field_qualifier 2 False, Field field_variables 9 False]),
     (12684, [Field field_body 11 False, Field field_extends 6 False, Field field_method 10 False, Field field_name 3 False, Field field_pragmas 0 False, Field field_qualifier 2 False, Field field_variables 9 False]),
     (12691, [Field field_body 11 False, Field field_directives 9 False, Field field_extends 6 False, Field field_name 3 False, Field field_pragmas 0 False, Field field_qualifier 2 False]),
     (12697, [Field field_body 11 False, Field field_directives 9 False, Field field_extends 6 False, Field field_name 3 False, Field field_pragmas 0 False, Field field_qualifier 2 False, Field field_variables 10 False])]"

text \<open>Lines 22659 to 22800.\<close>

definition ts_field_map_entries_105 :: "(nat \<times> TSFieldMapEntry list) list" where
  "ts_field_map_entries_105 =
    [(12704, [Field field_directives 9 False, Field field_extends 6 False, Field field_method 11 False, Field field_name 3 False, Field field_pragmas 0 False, Field field_qualifier 2 False, Field field_variables 10 False]),
     (12711, [Field field_body 11 False, Field field_directives 9 False, Field field_extends 6 False, Field field_method 10 False, Field field_name 3 False, Field field_pragmas 0 False, Field field_qualifier 2 False]),
     (12718, [Field field_body 11 False, Field field_extends 6 False, Field field_method 9 False, Field field_name 3 False, Field field_pragmas 0 False, Field field_qualifier 2 False]),
     (12724, [Field field_body 11 False, Field field_implements 7 False, Field field_method 9 False, Field field_name 3 False, Field field_pragmas 0 False, Field field_qualifier 2 False, Field field_variables 8 False]),
     (12731, [Field field_body 11 False, Field field_directives 8 False, Field field_implements 7 False, Field field_name 3 False, Field field_pragmas 0 False, Field field_qualifier 2 False, Field field_variables 9 False]),
     (12738, [Field field_body 11 False, Field field_directives 8 False, Field field_implements 7 False, Field field_method 10 False, Field field_name 3 False, Field field_pragmas 0 False, Field field_qualifier 2 False, Field field_variables 9 False]),
     (12746, [Field field_body 11 False, Field field_directives 8 False, Field field_implements 7 False, Field field_method 9 False, Field field_name 3 False, Field field_pragmas 0 False, Field field_qualifier 2 False]),
     (12753, [Field field_body 11 False, Field field_implements 7 False, Field field_name 3 False, Field field_pragmas 0 False, Field field_qualifier 2 False, Field field_variables 9 False]),
     (12759, [Field field_body 11 False, Field field_implements 7 False, Field field_method 10 False, Field field_name 3 False, Field field_pragmas 0 False, Field field_qualifier 2 False, Field field_variables 9 False]),
     (12766, [Field field_body 11 False, Field field_directives 9 False, Field field_implements 7 False, Field field_name 3 False, Field field_pragmas 0 False, Field field_qualifier 2 False]),
     (12772, [Field field_body 11 False, Field field_directives 9 False, Field field_implements 7 False, Field field_name 3 False, Field field_pragmas 0 False, Field field_qualifier 2 False, Field field_variables 10 False]),
     (12779, [Field field_directives 9 False, Field field_implements 7 False, Field field_method 11 False, Field field_name 3 False, Field field_pragmas 0 False, Field field_qualifier 2 False, Field field_variables 10 False]),
     (12786, [Field field_body 11 False, Field field_directives 9 False, Field field_implements 7 False, Field field_method 10 False, Field field_name 3 False, Field field_pragmas 0 False, Field field_qualifier 2 False]),
     (12793, [Field field_body 11 False, Field field_implements 7 False, Field field_method 9 False, Field field_name 3 False, Field field_pragmas 0 False, Field field_qualifier 2 False]),
     (12799, [Field field_body 11 False, Field field_directives 7 False, Field field_method 9 False, Field field_name 3 False, Field field_pragmas 0 False, Field field_qualifier 2 False, Field field_variables 8 False]),
     (12806, [Field field_body 11 False, Field field_directives 7 False, Field field_extends 4 False, Field field_implements 6 False, Field field_method 9 False, Field field_name 2 False, Field field_pragmas 0 False, Field field_variables 8 False]),
     (12814, [Field field_body 11 False, Field field_extends 4 False, Field field_implements 6 False, Field field_method 9 False, Field field_name 2 False, Field field_pragmas 0 False, Field field_variables 8 False]),
     (12821, [Field field_body 11 False, Field field_directives 8 False, Field field_extends 4 False, Field field_implements 6 False, Field field_name 2 False, Field field_pragmas 0 False, Field field_variables 9 False])]"

text \<open>Lines 22801 to 22944.\<close>

definition ts_field_map_entries_106 :: "(nat \<times> TSFieldMapEntry list) list" where
  "ts_field_map_entries_106 =
    [(12828, [Field field_body 11 False, Field field_directives 8 False, Field field_extends 4 False, Field field_implements 6 False, Field field_method 10 False, Field field_name 2 False, Field field_pragmas 0 False, Field field_variables 9 False]),
     (12836, [Field field_body 11 False, Field field_directives 8 False, Field field_extends 4 False, Field field_implements 6 False, Field field_method 9 False, Field field_name 2 False, Field field_pragmas 0 False]),
     (12843, [Field field_body 11 False, Field field_extends 4 False, Field field_implements 7 False, Field field_method 9 False, Field field_name 2 False, Field field_pragmas 0 False, Field field_variables 8 False]),
     (12850, [Field field_body 11 False, Field field_directives 8 False, Field field_extends 4 False, Field field_implements 7 False, Field field_name 2 False, Field field_pragmas 0 False, Field field_variables 9 False]),
     (12857, [Field field_body 11 False, Field field_directives 8 False, Field field_extends 4 False, Field field_implements 7 False, Field field_method 10 False, Field field_name 2 False, Field field_pragmas 0 False, Field field_variables 9 False]),
     (12865, [Field field_body 11 False, Field field_directives 8 False, Field field_extends 4 False, Field field_implements 7 False, Field field_method 9 False, Field field_name 2 False, Field field_pragmas 0 False]),
     (12872, [Field field_body 11 False, Field field_extends 4 False, Field field_implements 7 False, Field field_name 2 False, Field field_pragmas 0 False, Field field_variables 9 False]),
     (12878, [Field field_body 11 False, Field field_extends 4 False, Field field_implements 7 False, Field field_method 10 False, Field field_name 2 False, Field field_pragmas 0 False, Field field_variables 9 False]),
     (12885, [Field field_body 11 False, Field field_directives 9 False, Field field_extends 4 False, Field field_implements 7 False, Field field_name 2 False, Field field_pragmas 0 False]),
     (12891, [Field field_body 11 False, Field field_directives 9 False, Field field_extends 4 False, Field field_implements 7 False, Field field_name 2 False, Field field_pragmas 0 False, Field field_variables 10 False]),
     (12898, [Field field_directives 9 False, Field field_extends 4 False, Field field_implements 7 False, Field field_method 11 False, Field field_name 2 False, Field field_pragmas 0 False, Field field_variables 10 False]),
     (12905, [Field field_body 11 False, Field field_directives 9 False, Field field_extends 4 False, Field field_implements 7 False, Field field_method 10 False, Field field_name 2 False, Field field_pragmas 0 False]),
     (12912, [Field field_body 11 False, Field field_extends 4 False, Field field_implements 7 False, Field field_method 9 False, Field field_name 2 False, Field field_pragmas 0 False]),
     (12918, [Field field_body 11 False, Field field_directives 7 False, Field field_extends 4 False, Field field_method 9 False, Field field_name 2 False, Field field_pragmas 0 False, Field field_variables 8 False]),
     (12925, [Field field_body 11 False, Field field_directives 7 False, Field field_implements 5 False, Field field_method 9 False, Field field_name 2 False, Field field_pragmas 0 False, Field field_variables 8 False]),
     (12932, [Field field_body 11 False, Field field_extends 5 False, Field field_implements 7 False, Field field_method 9 False, Field field_name 2 False, Field field_pragmas 0 False, Field field_variables 8 False]),
     (12939, [Field field_body 11 False, Field field_directives 8 False, Field field_extends 5 False, Field field_implements 7 False, Field field_name 2 False, Field field_pragmas 0 False, Field field_variables 9 False]),
     (12946, [Field field_body 11 False, Field field_directives 8 False, Field field_extends 5 False, Field field_implements 7 False, Field field_method 10 False, Field field_name 2 False, Field field_pragmas 0 False, Field field_variables 9 False])]"

text \<open>Lines 22945 to 23092.\<close>

definition ts_field_map_entries_107 :: "(nat \<times> TSFieldMapEntry list) list" where
  "ts_field_map_entries_107 =
    [(12954, [Field field_body 11 False, Field field_directives 8 False, Field field_extends 5 False, Field field_implements 7 False, Field field_method 9 False, Field field_name 2 False, Field field_pragmas 0 False]),
     (12961, [Field field_body 11 False, Field field_extends 5 False, Field field_implements 7 False, Field field_name 2 False, Field field_pragmas 0 False, Field field_variables 9 False]),
     (12967, [Field field_body 11 False, Field field_extends 5 False, Field field_implements 7 False, Field field_method 10 False, Field field_name 2 False, Field field_pragmas 0 False, Field field_variables 9 False]),
     (12974, [Field field_body 11 False, Field field_directives 9 False, Field field_extends 5 False, Field field_implements 7 False, Field field_name 2 False, Field field_pragmas 0 False]),
     (12980, [Field field_body 11 False, Field field_directives 9 False, Field field_extends 5 False, Field field_implements 7 False, Field field_name 2 False, Field field_pragmas 0 False, Field field_variables 10 False]),
     (12987, [Field field_directives 9 False, Field field_extends 5 False, Field field_implements 7 False, Field field_method 11 False, Field field_name 2 False, Field field_pragmas 0 False, Field field_variables 10 False]),
     (12994, [Field field_body 11 False, Field field_directives 9 False, Field field_extends 5 False, Field field_implements 7 False, Field field_method 10 False, Field field_name 2 False, Field field_pragmas 0 False]),
     (13001, [Field field_body 11 False, Field field_extends 5 False, Field field_implements 7 False, Field field_method 9 False, Field field_name 2 False, Field field_pragmas 0 False]),
     (13007, [Field field_body 11 False, Field field_extends 5 False, Field field_implements 8 False, Field field_name 2 False, Field field_pragmas 0 False, Field field_variables 9 False]),
     (13013, [Field field_body 11 False, Field field_extends 5 False, Field field_implements 8 False, Field field_method 10 False, Field field_name 2 False, Field field_pragmas 0 False, Field field_variables 9 False]),
     (13020, [Field field_body 11 False, Field field_directives 9 False, Field field_extends 5 False, Field field_implements 8 False, Field field_name 2 False, Field field_pragmas 0 False]),
     (13026, [Field field_body 11 False, Field field_directives 9 False, Field field_extends 5 False, Field field_implements 8 False, Field field_name 2 False, Field field_pragmas 0 False, Field field_variables 10 False]),
     (13033, [Field field_directives 9 False, Field field_extends 5 False, Field field_implements 8 False, Field field_method 11 False, Field field_name 2 False, Field field_pragmas 0 False, Field field_variables 10 False]),
     (13040, [Field field_body 11 False, Field field_directives 9 False, Field field_extends 5 False, Field field_implements 8 False, Field field_method 10 False, Field field_name 2 False, Field field_pragmas 0 False]),
     (13047, [Field field_body 11 False, Field field_extends 5 False, Field field_implements 8 False, Field field_name 2 False, Field field_pragmas 0 False]),
     (13052, [Field field_body 11 False, Field field_extends 5 False, Field field_implements 8 False, Field field_name 2 False, Field field_pragmas 0 False, Field field_variables 10 False]),
     (13058, [Field field_extends 5 False, Field field_implements 8 False, Field field_method 11 False, Field field_name 2 False, Field field_pragmas 0 False, Field field_variables 10 False]),
     (13064, [Field field_body 11 False, Field field_directives 10 False, Field field_extends 5 False, Field field_implements 8 False, Field field_name 2 False, Field field_pragmas 0 False]),
     (13070, [Field field_directives 10 False, Field field_extends 5 False, Field field_implements 8 False, Field field_name 2 False, Field field_pragmas 0 False, Field field_variables 11 False]),
     (13076, [Field field_directives 10 False, Field field_extends 5 False, Field field_implements 8 False, Field field_method 11 False, Field field_name 2 False, Field field_pragmas 0 False])]"

text \<open>Lines 23093 to 23240.\<close>

definition ts_field_map_entries_108 :: "(nat \<times> TSFieldMapEntry list) list" where
  "ts_field_map_entries_108 =
    [(13082, [Field field_body 11 False, Field field_extends 5 False, Field field_implements 8 False, Field field_method 10 False, Field field_name 2 False, Field field_pragmas 0 False]),
     (13088, [Field field_body 11 False, Field field_extends 5 False, Field field_implements 8 False, Field field_method 9 False, Field field_name 2 False, Field field_pragmas 0 False]),
     (13094, [Field field_body 11 False, Field field_directives 7 False, Field field_extends 5 False, Field field_method 9 False, Field field_name 2 False, Field field_pragmas 0 False, Field field_variables 8 False]),
     (13101, [Field field_body 11 False, Field field_extends 5 False, Field field_method 9 False, Field field_name 2 False, Field field_pragmas 0 False, Field field_variables 8 False]),
     (13107, [Field field_body 11 False, Field field_directives 8 False, Field field_extends 5 False, Field field_name 2 False, Field field_pragmas 0 False, Field field_variables 9 False]),
     (13113, [Field field_body 11 False, Field field_directives 8 False, Field field_extends 5 False, Field field_method 10 False, Field field_name 2 False, Field field_pragmas 0 False, Field field_variables 9 False]),
     (13120, [Field field_body 11 False, Field field_directives 8 False, Field field_extends 5 False, Field field_method 9 False, Field field_name 2 False, Field field_pragmas 0 False]),
     (13126, [Field field_body 11 False, Field field_directives 7 False, Field field_implements 6 False, Field field_method 9 False, Field field_name 2 False, Field field_pragmas 0 False, Field field_variables 8 False]),
     (13133, [Field field_body 11 False, Field field_implements 6 False, Field field_method 9 False, Field field_name 2 False, Field field_pragmas 0 False, Field field_variables 8 False]),
     (13139, [Field field_body 11 False, Field field_directives 8 False, Field field_implements 6 False, Field field_name 2 False, Field field_pragmas 0 False, Field field_variables 9 False]),
     (13145, [Field field_body 11 False, Field field_directives 8 False, Field field_implements 6 False, Field field_method 10 False, Field field_name 2 False, Field field_pragmas 0 False, Field field_variables 9 False]),
     (13152, [Field field_body 11 False, Field field_directives 8 False, Field field_implements 6 False, Field field_method 9 False, Field field_name 2 False, Field field_pragmas 0 False]),
     (13158, [Field field_body 12 False, Field field_directives 8 False, Field field_extends 4 False, Field field_implements 6 False, Field field_method 10 False, Field field_name 2 False, Field field_qualifier 1 False, Field field_variables 9 False]),
     (13166, [Field field_body 12 False, Field field_directives 8 False, Field field_extends 4 False, Field field_implements 7 False, Field field_method 10 False, Field field_name 2 False, Field field_qualifier 1 False, Field field_variables 9 False]),
     (13174, [Field field_body 12 False, Field field_extends 4 False, Field field_implements 7 False, Field field_method 10 False, Field field_name 2 False, Field field_qualifier 1 False, Field field_variables 9 False]),
     (13181, [Field field_body 12 False, Field field_directives 9 False, Field field_extends 4 False, Field field_implements 7 False, Field field_name 2 False, Field field_qualifier 1 False, Field field_variables 10 False]),
     (13188, [Field field_body 12 False, Field field_directives 9 False, Field field_extends 4 False, Field field_implements 7 False, Field field_method 11 False, Field field_name 2 False, Field field_qualifier 1 False, Field field_variables 10 False]),
     (13196, [Field field_body 12 False, Field field_directives 9 False, Field field_extends 4 False, Field field_implements 7 False, Field field_method 10 False, Field field_name 2 False, Field field_qualifier 1 False]),
     (13203, [Field field_body 12 False, Field field_directives 8 False, Field field_extends 5 False, Field field_implements 7 False, Field field_method 10 False, Field field_name 2 False, Field field_qualifier 1 False, Field field_variables 9 False])]"

text \<open>Lines 23241 to 23383.\<close>

definition ts_field_map_entries_109 :: "(nat \<times> TSFieldMapEntry list) list" where
  "ts_field_map_entries_109 =
    [(13211, [Field field_body 12 False, Field field_extends 5 False, Field field_implements 7 False, Field field_method 10 False, Field field_name 2 False, Field field_qualifier 1 False, Field field_variables 9 False]),
     (13218, [Field field_body 12 False, Field field_directives 9 False, Field field_extends 5 False, Field field_implements 7 False, Field field_name 2 False, Field field_qualifier 1 False, Field field_variables 10 False]),
     (13225, [Field field_body 12 False, Field field_directives 9 False, Field field_extends 5 False, Field field_implements 7 False, Field field_method 11 False, Field field_name 2 False, Field field_qualifier 1 False, Field field_variables 10 False]),
     (13233, [Field field_body 12 False, Field field_directives 9 False, Field field_extends 5 False, Field field_implements 7 False, Field field_method 10 False, Field field_name 2 False, Field field_qualifier 1 False]),
     (13240, [Field field_body 12 False, Field field_extends 5 False, Field field_implements 8 False, Field field_method 10 False, Field field_name 2 False, Field field_qualifier 1 False, Field field_variables 9 False]),
     (13247, [Field field_body 12 False, Field field_directives 9 False, Field field_extends 5 False, Field field_implements 8 False, Field field_name 2 False, Field field_qualifier 1 False, Field field_variables 10 False]),
     (13254, [Field field_body 12 False, Field field_directives 9 False, Field field_extends 5 False, Field field_implements 8 False, Field field_method 11 False, Field field_name 2 False, Field field_qualifier 1 False, Field field_variables 10 False]),
     (13262, [Field field_body 12 False, Field field_directives 9 False, Field field_extends 5 False, Field field_implements 8 False, Field field_method 10 False, Field field_name 2 False, Field field_qualifier 1 False]),
     (13269, [Field field_body 12 False, Field field_extends 5 False, Field field_implements 8 False, Field field_name 2 False, Field field_qualifier 1 False, Field field_variables 10 False]),
     (13275, [Field field_body 12 False, Field field_extends 5 False, Field field_implements 8 False, Field field_method 11 False, Field field_name 2 False, Field field_qualifier 1 False, Field field_variables 10 False]),
     (13282, [Field field_body 12 False, Field field_directives 10 False, Field field_extends 5 False, Field field_implements 8 False, Field field_name 2 False, Field field_qualifier 1 False]),
     (13288, [Field field_body 12 False, Field field_directives 10 False, Field field_extends 5 False, Field field_implements 8 False, Field field_name 2 False, Field field_qualifier 1 False, Field field_variables 11 False]),
     (13295, [Field field_directives 10 False, Field field_extends 5 False, Field field_implements 8 False, Field field_method 12 False, Field field_name 2 False, Field field_qualifier 1 False, Field field_variables 11 False]),
     (13302, [Field field_body 12 False, Field field_directives 10 False, Field field_extends 5 False, Field field_implements 8 False, Field field_method 11 False, Field field_name 2 False, Field field_qualifier 1 False]),
     (13309, [Field field_body 12 False, Field field_extends 5 False, Field field_implements 8 False, Field field_method 10 False, Field field_name 2 False, Field field_qualifier 1 False]),
     (13315, [Field field_body 12 False, Field field_directives 8 False, Field field_extends 5 False, Field field_method 10 False, Field field_name 2 False, Field field_qualifier 1 False, Field field_variables 9 False]),
     (13322, [Field field_body 12 False, Field field_directives 8 False, Field field_implements 6 False, Field field_method 10 False, Field field_name 2 False, Field field_qualifier 1 False, Field field_variables 9 False]),
     (13329, [Field field_body 12 False, Field field_directives 8 False, Field field_extends 3 False, Field field_implements 6 False, Field field_method 10 False, Field field_name 1 False, Field field_variables 9 False])]"

text \<open>Lines 23384 to 23531.\<close>

definition ts_field_map_entries_110 :: "(nat \<times> TSFieldMapEntry list) list" where
  "ts_field_map_entries_110 =
    [(13336, [Field field_body 12 False, Field field_directives 8 False, Field field_extends 4 False, Field field_implements 6 False, Field field_method 10 False, Field field_name 1 False, Field field_variables 9 False]),
     (13343, [Field field_body 12 False, Field field_directives 8 False, Field field_extends 4 False, Field field_implements 7 False, Field field_method 10 False, Field field_name 1 False, Field field_variables 9 False]),
     (13350, [Field field_body 12 False, Field field_extends 4 False, Field field_implements 7 False, Field field_method 10 False, Field field_name 1 False, Field field_variables 9 False]),
     (13356, [Field field_body 12 False, Field field_directives 9 False, Field field_extends 4 False, Field field_implements 7 False, Field field_name 1 False, Field field_variables 10 False]),
     (13362, [Field field_body 12 False, Field field_directives 9 False, Field field_extends 4 False, Field field_implements 7 False, Field field_method 11 False, Field field_name 1 False, Field field_variables 10 False]),
     (13369, [Field field_body 12 False, Field field_directives 9 False, Field field_extends 4 False, Field field_implements 7 False, Field field_method 10 False, Field field_name 1 False]),
     (13375, [Field field_directives 3 False, Field field_extends 6 False, Field field_implements 9 False, Field field_methods 12 False, Field field_modifier 1 False, Field field_name 2 False, Field field_variables 11 False]),
     (13382, [Field field_interval 3 False, Field field_priority 8 False]),
     (13384, [Field field_body 12 False, Field field_directives 8 False, Field field_extends 5 False, Field field_implements 7 False, Field field_method 10 False, Field field_name 3 False, Field field_pragmas 0 False, Field field_qualifier 2 False, Field field_variables 9 False]),
     (13393, [Field field_body 12 False, Field field_extends 5 False, Field field_implements 7 False, Field field_method 10 False, Field field_name 3 False, Field field_pragmas 0 False, Field field_qualifier 2 False, Field field_variables 9 False]),
     (13401, [Field field_body 12 False, Field field_directives 9 False, Field field_extends 5 False, Field field_implements 7 False, Field field_name 3 False, Field field_pragmas 0 False, Field field_qualifier 2 False, Field field_variables 10 False]),
     (13409, [Field field_body 12 False, Field field_directives 9 False, Field field_extends 5 False, Field field_implements 7 False, Field field_method 11 False, Field field_name 3 False, Field field_pragmas 0 False, Field field_qualifier 2 False, Field field_variables 10 False]),
     (13418, [Field field_body 12 False, Field field_directives 9 False, Field field_extends 5 False, Field field_implements 7 False, Field field_method 10 False, Field field_name 3 False, Field field_pragmas 0 False, Field field_qualifier 2 False]),
     (13426, [Field field_body 12 False, Field field_extends 5 False, Field field_implements 8 False, Field field_method 10 False, Field field_name 3 False, Field field_pragmas 0 False, Field field_qualifier 2 False, Field field_variables 9 False]),
     (13434, [Field field_body 12 False, Field field_directives 9 False, Field field_extends 5 False, Field field_implements 8 False, Field field_name 3 False, Field field_pragmas 0 False, Field field_qualifier 2 False, Field field_variables 10 False]),
     (13442, [Field field_body 12 False, Field field_directives 9 False, Field field_extends 5 False, Field field_implements 8 False, Field field_method 11 False, Field field_name 3 False, Field field_pragmas 0 False, Field field_qualifier 2 False, Field field_variables 10 False]),
     (13451, [Field field_body 12 False, Field field_directives 9 False, Field field_extends 5 False, Field field_implements 8 False, Field field_method 10 False, Field field_name 3 False, Field field_pragmas 0 False, Field field_qualifier 2 False]),
     (13459, [Field field_body 12 False, Field field_extends 5 False, Field field_implements 8 False, Field field_name 3 False, Field field_pragmas 0 False, Field field_qualifier 2 False, Field field_variables 10 False])]"

text \<open>Lines 23532 to 23681.\<close>

definition ts_field_map_entries_111 :: "(nat \<times> TSFieldMapEntry list) list" where
  "ts_field_map_entries_111 =
    [(13466, [Field field_body 12 False, Field field_extends 5 False, Field field_implements 8 False, Field field_method 11 False, Field field_name 3 False, Field field_pragmas 0 False, Field field_qualifier 2 False, Field field_variables 10 False]),
     (13474, [Field field_body 12 False, Field field_directives 10 False, Field field_extends 5 False, Field field_implements 8 False, Field field_name 3 False, Field field_pragmas 0 False, Field field_qualifier 2 False]),
     (13481, [Field field_body 12 False, Field field_directives 10 False, Field field_extends 5 False, Field field_implements 8 False, Field field_name 3 False, Field field_pragmas 0 False, Field field_qualifier 2 False, Field field_variables 11 False]),
     (13489, [Field field_directives 10 False, Field field_extends 5 False, Field field_implements 8 False, Field field_method 12 False, Field field_name 3 False, Field field_pragmas 0 False, Field field_qualifier 2 False, Field field_variables 11 False]),
     (13497, [Field field_body 12 False, Field field_directives 10 False, Field field_extends 5 False, Field field_implements 8 False, Field field_method 11 False, Field field_name 3 False, Field field_pragmas 0 False, Field field_qualifier 2 False]),
     (13505, [Field field_body 12 False, Field field_extends 5 False, Field field_implements 8 False, Field field_method 10 False, Field field_name 3 False, Field field_pragmas 0 False, Field field_qualifier 2 False]),
     (13512, [Field field_body 12 False, Field field_directives 8 False, Field field_extends 5 False, Field field_method 10 False, Field field_name 3 False, Field field_pragmas 0 False, Field field_qualifier 2 False, Field field_variables 9 False]),
     (13520, [Field field_body 12 False, Field field_directives 8 False, Field field_implements 6 False, Field field_method 10 False, Field field_name 3 False, Field field_pragmas 0 False, Field field_qualifier 2 False, Field field_variables 9 False]),
     (13528, [Field field_body 12 False, Field field_extends 6 False, Field field_implements 8 False, Field field_method 10 False, Field field_name 3 False, Field field_pragmas 0 False, Field field_qualifier 2 False, Field field_variables 9 False]),
     (13536, [Field field_body 12 False, Field field_directives 9 False, Field field_extends 6 False, Field field_implements 8 False, Field field_name 3 False, Field field_pragmas 0 False, Field field_qualifier 2 False, Field field_variables 10 False]),
     (13544, [Field field_body 12 False, Field field_directives 9 False, Field field_extends 6 False, Field field_implements 8 False, Field field_method 11 False, Field field_name 3 False, Field field_pragmas 0 False, Field field_qualifier 2 False, Field field_variables 10 False]),
     (13553, [Field field_body 12 False, Field field_directives 9 False, Field field_extends 6 False, Field field_implements 8 False, Field field_method 10 False, Field field_name 3 False, Field field_pragmas 0 False, Field field_qualifier 2 False]),
     (13561, [Field field_body 12 False, Field field_extends 6 False, Field field_implements 8 False, Field field_name 3 False, Field field_pragmas 0 False, Field field_qualifier 2 False, Field field_variables 10 False]),
     (13568, [Field field_body 12 False, Field field_extends 6 False, Field field_implements 8 False, Field field_method 11 False, Field field_name 3 False, Field field_pragmas 0 False, Field field_qualifier 2 False, Field field_variables 10 False]),
     (13576, [Field field_body 12 False, Field field_directives 10 False, Field field_extends 6 False, Field field_implements 8 False, Field field_name 3 False, Field field_pragmas 0 False, Field field_qualifier 2 False]),
     (13583, [Field field_body 12 False, Field field_directives 10 False, Field field_extends 6 False, Field field_implements 8 False, Field field_name 3 False, Field field_pragmas 0 False, Field field_qualifier 2 False, Field field_variables 11 False]),
     (13591, [Field field_directives 10 False, Field field_extends 6 False, Field field_implements 8 False, Field field_method 12 False, Field field_name 3 False, Field field_pragmas 0 False, Field field_qualifier 2 False, Field field_variables 11 False])]"

text \<open>Lines 23682 to 23830.\<close>

definition ts_field_map_entries_112 :: "(nat \<times> TSFieldMapEntry list) list" where
  "ts_field_map_entries_112 =
    [(13599, [Field field_body 12 False, Field field_directives 10 False, Field field_extends 6 False, Field field_implements 8 False, Field field_method 11 False, Field field_name 3 False, Field field_pragmas 0 False, Field field_qualifier 2 False]),
     (13607, [Field field_body 12 False, Field field_extends 6 False, Field field_implements 8 False, Field field_method 10 False, Field field_name 3 False, Field field_pragmas 0 False, Field field_qualifier 2 False]),
     (13614, [Field field_body 12 False, Field field_extends 6 False, Field field_implements 9 False, Field field_name 3 False, Field field_pragmas 0 False, Field field_qualifier 2 False, Field field_variables 10 False]),
     (13621, [Field field_body 12 False, Field field_extends 6 False, Field field_implements 9 False, Field field_method 11 False, Field field_name 3 False, Field field_pragmas 0 False, Field field_qualifier 2 False, Field field_variables 10 False]),
     (13629, [Field field_body 12 False, Field field_directives 10 False, Field field_extends 6 False, Field field_implements 9 False, Field field_name 3 False, Field field_pragmas 0 False, Field field_qualifier 2 False]),
     (13636, [Field field_body 12 False, Field field_directives 10 False, Field field_extends 6 False, Field field_implements 9 False, Field field_name 3 False, Field field_pragmas 0 False, Field field_qualifier 2 False, Field field_variables 11 False]),
     (13644, [Field field_directives 10 False, Field field_extends 6 False, Field field_implements 9 False, Field field_method 12 False, Field field_name 3 False, Field field_pragmas 0 False, Field field_qualifier 2 False, Field field_variables 11 False]),
     (13652, [Field field_body 12 False, Field field_directives 10 False, Field field_extends 6 False, Field field_implements 9 False, Field field_method 11 False, Field field_name 3 False, Field field_pragmas 0 False, Field field_qualifier 2 False]),
     (13660, [Field field_body 12 False, Field field_extends 6 False, Field field_implements 9 False, Field field_name 3 False, Field field_pragmas 0 False, Field field_qualifier 2 False]),
     (13666, [Field field_body 12 False, Field field_extends 6 False, Field field_implements 9 False, Field field_name 3 False, Field field_pragmas 0 False, Field field_qualifier 2 False, Field field_variables 11 False]),
     (13673, [Field field_extends 6 False, Field field_implements 9 False, Field field_method 12 False, Field field_name 3 False, Field field_pragmas 0 False, Field field_qualifier 2 False, Field field_variables 11 False]),
     (13680, [Field field_body 12 False, Field field_directives 11 False, Field field_extends 6 False, Field field_implements 9 False, Field field_name 3 False, Field field_pragmas 0 False, Field field_qualifier 2 False]),
     (13687, [Field field_directives 11 False, Field field_extends 6 False, Field field_implements 9 False, Field field_name 3 False, Field field_pragmas 0 False, Field field_qualifier 2 False, Field field_variables 12 False]),
     (13694, [Field field_directives 11 False, Field field_extends 6 False, Field field_implements 9 False, Field field_method 12 False, Field field_name 3 False, Field field_pragmas 0 False, Field field_qualifier 2 False]),
     (13701, [Field field_body 12 False, Field field_extends 6 False, Field field_implements 9 False, Field field_method 11 False, Field field_name 3 False, Field field_pragmas 0 False, Field field_qualifier 2 False]),
     (13708, [Field field_body 12 False, Field field_extends 6 False, Field field_implements 9 False, Field field_method 10 False, Field field_name 3 False, Field field_pragmas 0 False, Field field_qualifier 2 False]),
     (13715, [Field field_body 12 False, Field field_directives 8 False, Field field_extends 6 False, Field field_method 10 False, Field field_name 3 False, Field field_pragmas 0 False, Field field_qualifier 2 False, Field field_variables 9 False]),
     (13723, [Field field_body 12 False, Field field_extends 6 False, Field field_method 10 False, Field field_name 3 False, Field field_pragmas 0 False, Field field_qualifier 2 False, Field field_variables 9 False])]"

text \<open>Lines 23831 to 23973.\<close>

definition ts_field_map_entries_113 :: "(nat \<times> TSFieldMapEntry list) list" where
  "ts_field_map_entries_113 =
    [(13730, [Field field_body 12 False, Field field_directives 9 False, Field field_extends 6 False, Field field_name 3 False, Field field_pragmas 0 False, Field field_qualifier 2 False, Field field_variables 10 False]),
     (13737, [Field field_body 12 False, Field field_directives 9 False, Field field_extends 6 False, Field field_method 11 False, Field field_name 3 False, Field field_pragmas 0 False, Field field_qualifier 2 False, Field field_variables 10 False]),
     (13745, [Field field_body 12 False, Field field_directives 9 False, Field field_extends 6 False, Field field_method 10 False, Field field_name 3 False, Field field_pragmas 0 False, Field field_qualifier 2 False]),
     (13752, [Field field_body 12 False, Field field_directives 8 False, Field field_implements 7 False, Field field_method 10 False, Field field_name 3 False, Field field_pragmas 0 False, Field field_qualifier 2 False, Field field_variables 9 False]),
     (13760, [Field field_body 12 False, Field field_implements 7 False, Field field_method 10 False, Field field_name 3 False, Field field_pragmas 0 False, Field field_qualifier 2 False, Field field_variables 9 False]),
     (13767, [Field field_body 12 False, Field field_directives 9 False, Field field_implements 7 False, Field field_name 3 False, Field field_pragmas 0 False, Field field_qualifier 2 False, Field field_variables 10 False]),
     (13774, [Field field_body 12 False, Field field_directives 9 False, Field field_implements 7 False, Field field_method 11 False, Field field_name 3 False, Field field_pragmas 0 False, Field field_qualifier 2 False, Field field_variables 10 False]),
     (13782, [Field field_body 12 False, Field field_directives 9 False, Field field_implements 7 False, Field field_method 10 False, Field field_name 3 False, Field field_pragmas 0 False, Field field_qualifier 2 False]),
     (13789, [Field field_body 12 False, Field field_directives 8 False, Field field_extends 4 False, Field field_implements 6 False, Field field_method 10 False, Field field_name 2 False, Field field_pragmas 0 False, Field field_variables 9 False]),
     (13797, [Field field_body 12 False, Field field_directives 8 False, Field field_extends 4 False, Field field_implements 7 False, Field field_method 10 False, Field field_name 2 False, Field field_pragmas 0 False, Field field_variables 9 False]),
     (13805, [Field field_body 12 False, Field field_extends 4 False, Field field_implements 7 False, Field field_method 10 False, Field field_name 2 False, Field field_pragmas 0 False, Field field_variables 9 False]),
     (13812, [Field field_body 12 False, Field field_directives 9 False, Field field_extends 4 False, Field field_implements 7 False, Field field_name 2 False, Field field_pragmas 0 False, Field field_variables 10 False]),
     (13819, [Field field_body 12 False, Field field_directives 9 False, Field field_extends 4 False, Field field_implements 7 False, Field field_method 11 False, Field field_name 2 False, Field field_pragmas 0 False, Field field_variables 10 False]),
     (13827, [Field field_body 12 False, Field field_directives 9 False, Field field_extends 4 False, Field field_implements 7 False, Field field_method 10 False, Field field_name 2 False, Field field_pragmas 0 False]),
     (13834, [Field field_body 12 False, Field field_directives 8 False, Field field_extends 5 False, Field field_implements 7 False, Field field_method 10 False, Field field_name 2 False, Field field_pragmas 0 False, Field field_variables 9 False]),
     (13842, [Field field_body 12 False, Field field_extends 5 False, Field field_implements 7 False, Field field_method 10 False, Field field_name 2 False, Field field_pragmas 0 False, Field field_variables 9 False]),
     (13849, [Field field_body 12 False, Field field_directives 9 False, Field field_extends 5 False, Field field_implements 7 False, Field field_name 2 False, Field field_pragmas 0 False, Field field_variables 10 False])]"

text \<open>Lines 23974 to 24119.\<close>

definition ts_field_map_entries_114 :: "(nat \<times> TSFieldMapEntry list) list" where
  "ts_field_map_entries_114 =
    [(13856, [Field field_body 12 False, Field field_directives 9 False, Field field_extends 5 False, Field field_implements 7 False, Field field_method 11 False, Field field_name 2 False, Field field_pragmas 0 False, Field field_variables 10 False]),
     (13864, [Field field_body 12 False, Field field_directives 9 False, Field field_extends 5 False, Field field_implements 7 False, Field field_method 10 False, Field field_name 2 False, Field field_pragmas 0 False]),
     (13871, [Field field_body 12 False, Field field_extends 5 False, Field field_implements 8 False, Field field_method 10 False, Field field_name 2 False, Field field_pragmas 0 False, Field field_variables 9 False]),
     (13878, [Field field_body 12 False, Field field_directives 9 False, Field field_extends 5 False, Field field_implements 8 False, Field field_name 2 False, Field field_pragmas 0 False, Field field_variables 10 False]),
     (13885, [Field field_body 12 False, Field field_directives 9 False, Field field_extends 5 False, Field field_implements 8 False, Field field_method 11 False, Field field_name 2 False, Field field_pragmas 0 False, Field field_variables 10 False]),
     (13893, [Field field_body 12 False, Field field_directives 9 False, Field field_extends 5 False, Field field_implements 8 False, Field field_method 10 False, Field field_name 2 False, Field field_pragmas 0 False]),
     (13900, [Field field_body 12 False, Field field_extends 5 False, Field field_implements 8 False, Field field_name 2 False, Field field_pragmas 0 False, Field field_variables 10 False]),
     (13906, [Field field_body 12 False, Field field_extends 5 False, Field field_implements 8 False, Field field_method 11 False, Field field_name 2 False, Field field_pragmas 0 False, Field field_variables 10 False]),
     (13913, [Field field_body 12 False, Field field_directives 10 False, Field field_extends 5 False, Field field_implements 8 False, Field field_name 2 False, Field field_pragmas 0 False]),
     (13919, [Field field_body 12 False, Field field_directives 10 False, Field field_extends 5 False, Field field_implements 8 False, Field field_name 2 False, Field field_pragmas 0 False, Field field_variables 11 False]),
     (13926, [Field field_directives 10 False, Field field_extends 5 False, Field field_implements 8 False, Field field_method 12 False, Field field_name 2 False, Field field_pragmas 0 False, Field field_variables 11 False]),
     (13933, [Field field_body 12 False, Field field_directives 10 False, Field field_extends 5 False, Field field_implements 8 False, Field field_method 11 False, Field field_name 2 False, Field field_pragmas 0 False]),
     (13940, [Field field_body 12 False, Field field_extends 5 False, Field field_implements 8 False, Field field_method 10 False, Field field_name 2 False, Field field_pragmas 0 False]),
     (13946, [Field field_body 12 False, Field field_directives 8 False, Field field_extends 5 False, Field field_method 10 False, Field field_name 2 False, Field field_pragmas 0 False, Field field_variables 9 False]),
     (13953, [Field field_body 12 False, Field field_directives 8 False, Field field_implements 6 False, Field field_method 10 False, Field field_name 2 False, Field field_pragmas 0 False, Field field_variables 9 False]),
     (13960, [Field field_body 13 False, Field field_directives 9 False, Field field_extends 4 False, Field field_implements 7 False, Field field_method 11 False, Field field_name 2 False, Field field_qualifier 1 False, Field field_variables 10 False]),
     (13968, [Field field_body 13 False, Field field_directives 9 False, Field field_extends 5 False, Field field_implements 7 False, Field field_method 11 False, Field field_name 2 False, Field field_qualifier 1 False, Field field_variables 10 False]),
     (13976, [Field field_body 13 False, Field field_directives 9 False, Field field_extends 5 False, Field field_implements 8 False, Field field_method 11 False, Field field_name 2 False, Field field_qualifier 1 False, Field field_variables 10 False])]"

text \<open>Lines 24120 to 24264.\<close>

definition ts_field_map_entries_115 :: "(nat \<times> TSFieldMapEntry list) list" where
  "ts_field_map_entries_115 =
    [(13984, [Field field_body 13 False, Field field_extends 5 False, Field field_implements 8 False, Field field_method 11 False, Field field_name 2 False, Field field_qualifier 1 False, Field field_variables 10 False]),
     (13991, [Field field_body 13 False, Field field_directives 10 False, Field field_extends 5 False, Field field_implements 8 False, Field field_name 2 False, Field field_qualifier 1 False, Field field_variables 11 False]),
     (13998, [Field field_body 13 False, Field field_directives 10 False, Field field_extends 5 False, Field field_implements 8 False, Field field_method 12 False, Field field_name 2 False, Field field_qualifier 1 False, Field field_variables 11 False]),
     (14006, [Field field_body 13 False, Field field_directives 10 False, Field field_extends 5 False, Field field_implements 8 False, Field field_method 11 False, Field field_name 2 False, Field field_qualifier 1 False]),
     (14013, [Field field_body 13 False, Field field_directives 9 False, Field field_extends 4 False, Field field_implements 7 False, Field field_method 11 False, Field field_name 1 False, Field field_variables 10 False]),
     (14020, [Field field_body 13 False, Field field_directives 9 False, Field field_extends 5 False, Field field_implements 7 False, Field field_method 11 False, Field field_name 3 False, Field field_pragmas 0 False, Field field_qualifier 2 False, Field field_variables 10 False]),
     (14029, [Field field_body 13 False, Field field_directives 9 False, Field field_extends 5 False, Field field_implements 8 False, Field field_method 11 False, Field field_name 3 False, Field field_pragmas 0 False, Field field_qualifier 2 False, Field field_variables 10 False]),
     (14038, [Field field_body 13 False, Field field_extends 5 False, Field field_implements 8 False, Field field_method 11 False, Field field_name 3 False, Field field_pragmas 0 False, Field field_qualifier 2 False, Field field_variables 10 False]),
     (14046, [Field field_body 13 False, Field field_directives 10 False, Field field_extends 5 False, Field field_implements 8 False, Field field_name 3 False, Field field_pragmas 0 False, Field field_qualifier 2 False, Field field_variables 11 False]),
     (14054, [Field field_body 13 False, Field field_directives 10 False, Field field_extends 5 False, Field field_implements 8 False, Field field_method 12 False, Field field_name 3 False, Field field_pragmas 0 False, Field field_qualifier 2 False, Field field_variables 11 False]),
     (14063, [Field field_body 13 False, Field field_directives 10 False, Field field_extends 5 False, Field field_implements 8 False, Field field_method 11 False, Field field_name 3 False, Field field_pragmas 0 False, Field field_qualifier 2 False]),
     (14071, [Field field_body 13 False, Field field_directives 9 False, Field field_extends 6 False, Field field_implements 8 False, Field field_method 11 False, Field field_name 3 False, Field field_pragmas 0 False, Field field_qualifier 2 False, Field field_variables 10 False]),
     (14080, [Field field_body 13 False, Field field_extends 6 False, Field field_implements 8 False, Field field_method 11 False, Field field_name 3 False, Field field_pragmas 0 False, Field field_qualifier 2 False, Field field_variables 10 False]),
     (14088, [Field field_body 13 False, Field field_directives 10 False, Field field_extends 6 False, Field field_implements 8 False, Field field_name 3 False, Field field_pragmas 0 False, Field field_qualifier 2 False, Field field_variables 11 False]),
     (14096, [Field field_body 13 False, Field field_directives 10 False, Field field_extends 6 False, Field field_implements 8 False, Field field_method 12 False, Field field_name 3 False, Field field_pragmas 0 False, Field field_qualifier 2 False, Field field_variables 11 False]),
     (14105, [Field field_body 13 False, Field field_directives 10 False, Field field_extends 6 False, Field field_implements 8 False, Field field_method 11 False, Field field_name 3 False, Field field_pragmas 0 False, Field field_qualifier 2 False])]"

text \<open>Lines 24265 to 24414.\<close>

definition ts_field_map_entries_116 :: "(nat \<times> TSFieldMapEntry list) list" where
  "ts_field_map_entries_116 =
    [(14113, [Field field_body 13 False, Field field_extends 6 False, Field field_implements 9 False, Field field_method 11 False, Field field_name 3 False, Field field_pragmas 0 False, Field field_qualifier 2 False, Field field_variables 10 False]),
     (14121, [Field field_body 13 False, Field field_directives 10 False, Field field_extends 6 False, Field field_implements 9 False, Field field_name 3 False, Field field_pragmas 0 False, Field field_qualifier 2 False, Field field_variables 11 False]),
     (14129, [Field field_body 13 False, Field field_directives 10 False, Field field_extends 6 False, Field field_implements 9 False, Field field_method 12 False, Field field_name 3 False, Field field_pragmas 0 False, Field field_qualifier 2 False, Field field_variables 11 False]),
     (14138, [Field field_body 13 False, Field field_directives 10 False, Field field_extends 6 False, Field field_implements 9 False, Field field_method 11 False, Field field_name 3 False, Field field_pragmas 0 False, Field field_qualifier 2 False]),
     (14146, [Field field_body 13 False, Field field_extends 6 False, Field field_implements 9 False, Field field_name 3 False, Field field_pragmas 0 False, Field field_qualifier 2 False, Field field_variables 11 False]),
     (14153, [Field field_body 13 False, Field field_extends 6 False, Field field_implements 9 False, Field field_method 12 False, Field field_name 3 False, Field field_pragmas 0 False, Field field_qualifier 2 False, Field field_variables 11 False]),
     (14161, [Field field_body 13 False, Field field_directives 11 False, Field field_extends 6 False, Field field_implements 9 False, Field field_name 3 False, Field field_pragmas 0 False, Field field_qualifier 2 False]),
     (14168, [Field field_body 13 False, Field field_directives 11 False, Field field_extends 6 False, Field field_implements 9 False, Field field_name 3 False, Field field_pragmas 0 False, Field field_qualifier 2 False, Field field_variables 12 False]),
     (14176, [Field field_directives 11 False, Field field_extends 6 False, Field field_implements 9 False, Field field_method 13 False, Field field_name 3 False, Field field_pragmas 0 False, Field field_qualifier 2 False, Field field_variables 12 False]),
     (14184, [Field field_body 13 False, Field field_directives 11 False, Field field_extends 6 False, Field field_implements 9 False, Field field_method 12 False, Field field_name 3 False, Field field_pragmas 0 False, Field field_qualifier 2 False]),
     (14192, [Field field_body 13 False, Field field_extends 6 False, Field field_implements 9 False, Field field_method 11 False, Field field_name 3 False, Field field_pragmas 0 False, Field field_qualifier 2 False]),
     (14199, [Field field_body 13 False, Field field_directives 9 False, Field field_extends 6 False, Field field_method 11 False, Field field_name 3 False, Field field_pragmas 0 False, Field field_qualifier 2 False, Field field_variables 10 False]),
     (14207, [Field field_body 13 False, Field field_directives 9 False, Field field_implements 7 False, Field field_method 11 False, Field field_name 3 False, Field field_pragmas 0 False, Field field_qualifier 2 False, Field field_variables 10 False]),
     (14215, [Field field_body 13 False, Field field_directives 9 False, Field field_extends 4 False, Field field_implements 7 False, Field field_method 11 False, Field field_name 2 False, Field field_pragmas 0 False, Field field_variables 10 False]),
     (14223, [Field field_body 13 False, Field field_directives 9 False, Field field_extends 5 False, Field field_implements 7 False, Field field_method 11 False, Field field_name 2 False, Field field_pragmas 0 False, Field field_variables 10 False]),
     (14231, [Field field_body 13 False, Field field_directives 9 False, Field field_extends 5 False, Field field_implements 8 False, Field field_method 11 False, Field field_name 2 False, Field field_pragmas 0 False, Field field_variables 10 False]),
     (14239, [Field field_body 13 False, Field field_extends 5 False, Field field_implements 8 False, Field field_method 11 False, Field field_name 2 False, Field field_pragmas 0 False, Field field_variables 10 False])]"

text \<open>Lines 24415 to 24542.\<close>

definition ts_field_map_entries_117 :: "(nat \<times> TSFieldMapEntry list) list" where
  "ts_field_map_entries_117 =
    [(14246, [Field field_body 13 False, Field field_directives 10 False, Field field_extends 5 False, Field field_implements 8 False, Field field_name 2 False, Field field_pragmas 0 False, Field field_variables 11 False]),
     (14253, [Field field_body 13 False, Field field_directives 10 False, Field field_extends 5 False, Field field_implements 8 False, Field field_method 12 False, Field field_name 2 False, Field field_pragmas 0 False, Field field_variables 11 False]),
     (14261, [Field field_body 13 False, Field field_directives 10 False, Field field_extends 5 False, Field field_implements 8 False, Field field_method 11 False, Field field_name 2 False, Field field_pragmas 0 False]),
     (14268, [Field field_body 14 False, Field field_directives 10 False, Field field_extends 5 False, Field field_implements 8 False, Field field_method 12 False, Field field_name 2 False, Field field_qualifier 1 False, Field field_variables 11 False]),
     (14276, [Field field_body 14 False, Field field_directives 10 False, Field field_extends 5 False, Field field_implements 8 False, Field field_method 12 False, Field field_name 3 False, Field field_pragmas 0 False, Field field_qualifier 2 False, Field field_variables 11 False]),
     (14285, [Field field_body 14 False, Field field_directives 10 False, Field field_extends 6 False, Field field_implements 8 False, Field field_method 12 False, Field field_name 3 False, Field field_pragmas 0 False, Field field_qualifier 2 False, Field field_variables 11 False]),
     (14294, [Field field_body 14 False, Field field_directives 10 False, Field field_extends 6 False, Field field_implements 9 False, Field field_method 12 False, Field field_name 3 False, Field field_pragmas 0 False, Field field_qualifier 2 False, Field field_variables 11 False]),
     (14303, [Field field_body 14 False, Field field_extends 6 False, Field field_implements 9 False, Field field_method 12 False, Field field_name 3 False, Field field_pragmas 0 False, Field field_qualifier 2 False, Field field_variables 11 False]),
     (14311, [Field field_body 14 False, Field field_directives 11 False, Field field_extends 6 False, Field field_implements 9 False, Field field_name 3 False, Field field_pragmas 0 False, Field field_qualifier 2 False, Field field_variables 12 False]),
     (14319, [Field field_body 14 False, Field field_directives 11 False, Field field_extends 6 False, Field field_implements 9 False, Field field_method 13 False, Field field_name 3 False, Field field_pragmas 0 False, Field field_qualifier 2 False, Field field_variables 12 False]),
     (14328, [Field field_body 14 False, Field field_directives 11 False, Field field_extends 6 False, Field field_implements 9 False, Field field_method 12 False, Field field_name 3 False, Field field_pragmas 0 False, Field field_qualifier 2 False]),
     (14336, [Field field_body 14 False, Field field_directives 10 False, Field field_extends 5 False, Field field_implements 8 False, Field field_method 12 False, Field field_name 2 False, Field field_pragmas 0 False, Field field_variables 11 False]),
     (14344, [Field field_interval 7 False, Field field_priority 11 False, Field field_single 3 False]),
     (14347, [Field field_body 15 False, Field field_directives 11 False, Field field_extends 6 False, Field field_implements 9 False, Field field_method 13 False, Field field_name 3 False, Field field_pragmas 0 False, Field field_qualifier 2 False, Field field_variables 12 False]),
     (14356, [Field field_interval 7 False, Field field_priority 12 False, Field field_single 3 False])]"

definition field_map_runs :: "(nat \<times> TSFieldMapEntry list) list" where
  "field_map_runs =
     ts_field_map_entries_1 @ ts_field_map_entries_2 @ ts_field_map_entries_3 @
     ts_field_map_entries_4 @ ts_field_map_entries_5 @ ts_field_map_entries_6 @
     ts_field_map_entries_7 @ ts_field_map_entries_8 @ ts_field_map_entries_9 @
     ts_field_map_entries_10 @ ts_field_map_entries_11 @ ts_field_map_entries_12 @
     ts_field_map_entries_13 @ ts_field_map_entries_14 @ ts_field_map_entries_15 @
     ts_field_map_entries_16 @ ts_field_map_entries_17 @ ts_field_map_entries_18 @
     ts_field_map_entries_19 @ ts_field_map_entries_20 @ ts_field_map_entries_21 @
     ts_field_map_entries_22 @ ts_field_map_entries_23 @ ts_field_map_entries_24 @
     ts_field_map_entries_25 @ ts_field_map_entries_26 @ ts_field_map_entries_27 @
     ts_field_map_entries_28 @ ts_field_map_entries_29 @ ts_field_map_entries_30 @
     ts_field_map_entries_31 @ ts_field_map_entries_32 @ ts_field_map_entries_33 @
     ts_field_map_entries_34 @ ts_field_map_entries_35 @ ts_field_map_entries_36 @
     ts_field_map_entries_37 @ ts_field_map_entries_38 @ ts_field_map_entries_39 @
     ts_field_map_entries_40 @ ts_field_map_entries_41 @ ts_field_map_entries_42 @
     ts_field_map_entries_43 @ ts_field_map_entries_44 @ ts_field_map_entries_45 @
     ts_field_map_entries_46 @ ts_field_map_entries_47 @ ts_field_map_entries_48 @
     ts_field_map_entries_49 @ ts_field_map_entries_50 @ ts_field_map_entries_51 @
     ts_field_map_entries_52 @ ts_field_map_entries_53 @ ts_field_map_entries_54 @
     ts_field_map_entries_55 @ ts_field_map_entries_56 @ ts_field_map_entries_57 @
     ts_field_map_entries_58 @ ts_field_map_entries_59 @ ts_field_map_entries_60 @
     ts_field_map_entries_61 @ ts_field_map_entries_62 @ ts_field_map_entries_63 @
     ts_field_map_entries_64 @ ts_field_map_entries_65 @ ts_field_map_entries_66 @
     ts_field_map_entries_67 @ ts_field_map_entries_68 @ ts_field_map_entries_69 @
     ts_field_map_entries_70 @ ts_field_map_entries_71 @ ts_field_map_entries_72 @
     ts_field_map_entries_73 @ ts_field_map_entries_74 @ ts_field_map_entries_75 @
     ts_field_map_entries_76 @ ts_field_map_entries_77 @ ts_field_map_entries_78 @
     ts_field_map_entries_79 @ ts_field_map_entries_80 @ ts_field_map_entries_81 @
     ts_field_map_entries_82 @ ts_field_map_entries_83 @ ts_field_map_entries_84 @
     ts_field_map_entries_85 @ ts_field_map_entries_86 @ ts_field_map_entries_87 @
     ts_field_map_entries_88 @ ts_field_map_entries_89 @ ts_field_map_entries_90 @
     ts_field_map_entries_91 @ ts_field_map_entries_92 @ ts_field_map_entries_93 @
     ts_field_map_entries_94 @ ts_field_map_entries_95 @ ts_field_map_entries_96 @
     ts_field_map_entries_97 @ ts_field_map_entries_98 @ ts_field_map_entries_99 @
     ts_field_map_entries_100 @ ts_field_map_entries_101 @ ts_field_map_entries_102 @
     ts_field_map_entries_103 @ ts_field_map_entries_104 @ ts_field_map_entries_105 @
     ts_field_map_entries_106 @ ts_field_map_entries_107 @ ts_field_map_entries_108 @
     ts_field_map_entries_109 @ ts_field_map_entries_110 @ ts_field_map_entries_111 @
     ts_field_map_entries_112 @ ts_field_map_entries_113 @ ts_field_map_entries_114 @
     ts_field_map_entries_115 @ ts_field_map_entries_116 @ ts_field_map_entries_117"

definition ts_field_map_entries :: "TSFieldMapEntry list" where
  "ts_field_map_entries = runs (Field 0 0 False) field_map_runs"

end
