(* ===== verification/Language.thy ===== *)
theory Language
  imports Parse_Modes Reserved_Words Scanner_Properties Lexer_Properties Token_Properties
    Field_Map Primary_States
begin

text \<open>
  The language that \<open>tree_sitter_rk\<close> of \<open>src/crates/tree-sitter/src/parser.c\<close> hands to the runtime: the
  two lexers, the external scanner and the tables that say which of them a parser state uses and how.
\<close>

section \<open>The external scanner's tables\<close>

definition ts_external_token_c_style_comment :: nat where
  "ts_external_token_c_style_comment = 0"

definition ts_external_token_pascal_style_comment :: nat where
  "ts_external_token_pascal_style_comment = 1"

definition ts_external_token_pragma :: nat where
  "ts_external_token_pragma = 2"

definition ts_external_token__minus_before_base :: nat where
  "ts_external_token__minus_before_base = 3"

definition ts_external_token__plus_before_base :: nat where
  "ts_external_token__plus_before_base = 4"

lemmas ts_external_tokens =
  ts_external_token_c_style_comment_def ts_external_token_pascal_style_comment_def
  ts_external_token_pragma_def ts_external_token__minus_before_base_def
  ts_external_token__plus_before_base_def

text \<open>Arrays of \<open>EXTERNAL_TOKEN_COUNT\<close> entries; an element with no designator is 0.\<close>

definition EXTERNAL_TOKEN_COUNT :: nat where
  "EXTERNAL_TOKEN_COUNT = 5"

definition ts_external_scanner_symbol_map :: "TSSymbol list" where
  "ts_external_scanner_symbol_map = (replicate EXTERNAL_TOKEN_COUNT 0)
     [ts_external_token_c_style_comment := sym_c_style_comment,
      ts_external_token_pascal_style_comment := sym_pascal_style_comment,
      ts_external_token_pragma := sym_pragma,
      ts_external_token__minus_before_base := sym__minus_before_base,
      ts_external_token__plus_before_base := sym__plus_before_base]"

definition ts_external_scanner_states :: "bool list list" where
  "ts_external_scanner_states = (replicate 3 (replicate EXTERNAL_TOKEN_COUNT False))
     [1 := (replicate EXTERNAL_TOKEN_COUNT False)
        [ts_external_token_c_style_comment := True,
         ts_external_token_pascal_style_comment := True,
         ts_external_token_pragma := True,
         ts_external_token__minus_before_base := True,
         ts_external_token__plus_before_base := True],
      2 := (replicate EXTERNAL_TOKEN_COUNT False)
        [ts_external_token_c_style_comment := True,
         ts_external_token_pascal_style_comment := True,
         ts_external_token_pragma := True]]"

section \<open>The language\<close>

text \<open>
  The struct \<open>TSLanguage\<close>. The fields for the tables of the LR parser are left out. The initialiser is
  in the last lines of \<open>parser.c\<close>, 495466 to 495512; the tables of the external scanner above are those
  of lines 495413 to 495442.
\<close>

record 's TSLanguage =
  abi_version :: nat
  symbol_count :: nat
  alias_count :: nat
  token_count :: nat
  external_token_count :: nat
  state_count :: nat
  large_state_count :: nat
  production_id_count :: nat
  field_count :: nat
  max_alias_sequence_length :: nat
  symbol_names :: "string option list"
  field_names :: "string option list"
  field_map_slices :: "TSMapSlice list"
  field_map_entries :: "TSFieldMapEntry list"
  symbol_metadata :: "TSSymbolMetadata list"
  public_symbol_map :: "TSSymbol list"
  alias_map :: "nat list"
  alias_sequences :: "TSSymbol list list"
  lex_modes :: "TSLexerMode list"
  lex_fn :: "'s TSLexer \<Rightarrow> TSStateId \<Rightarrow> 's \<Rightarrow> (bool \<times> 's) option"
  keyword_lex_fn :: "'s TSLexer \<Rightarrow> TSStateId \<Rightarrow> 's \<Rightarrow> (bool \<times> 's) option"
  keyword_capture_token :: TSSymbol
  external_scanner_states :: "bool list list"
  external_scanner_symbol_map :: "TSSymbol list"
  external_scanner_scan :: "'s TSLexer \<Rightarrow> (TokenType \<Rightarrow> bool) \<Rightarrow> 's \<Rightarrow> (bool \<times> 's) option"
  primary_state_ids :: "TSStateId list"
  language_name :: string
  reserved_words :: "TSSymbol list list"
  max_reserved_word_set_size :: nat
  supertype_count :: nat
  supertype_symbols :: "TSSymbol list"
  supertype_map_slices :: "TSMapSlice list"
  supertype_map_entries :: "TSSymbol list"

definition tree_sitter_rk :: "(code_point \<Rightarrow> bool) \<Rightarrow> int list \<Rightarrow> 's TSLanguage" where
  "tree_sitter_rk iswspace uninit =
     \<lparr>abi_version = 15,
      symbol_count = SYMBOL_COUNT,
      alias_count = ALIAS_COUNT,
      token_count = TOKEN_COUNT,
      external_token_count = EXTERNAL_TOKEN_COUNT,
      state_count = STATE_COUNT,
      large_state_count = 2337,
      production_id_count = PRODUCTION_ID_COUNT,
      field_count = FIELD_COUNT,
      max_alias_sequence_length = MAX_ALIAS_SEQUENCE_LENGTH,
      symbol_names = ts_symbol_names,
      field_names = ts_field_names,
      field_map_slices = ts_field_map_slices,
      field_map_entries = ts_field_map_entries,
      symbol_metadata = ts_symbol_metadata,
      public_symbol_map = ts_symbol_map,
      alias_map = ts_non_terminal_alias_map,
      alias_sequences = ts_alias_sequences,
      lex_modes = ts_lex_modes,
      lex_fn = ts_lex,
      keyword_lex_fn = ts_lex_keywords,
      keyword_capture_token = sym_identifier,
      external_scanner_states = ts_external_scanner_states,
      external_scanner_symbol_map = ts_external_scanner_symbol_map,
      external_scanner_scan = tree_sitter_rk_external_scanner_scan iswspace uninit,
      primary_state_ids = ts_primary_state_ids,
      language_name = ''rk'',
      reserved_words = ts_reserved_words,
      max_reserved_word_set_size = 65,
      supertype_count = SUPERTYPE_COUNT,
      supertype_symbols = ts_supertype_symbols,
      supertype_map_slices = ts_supertype_map_slices,
      supertype_map_entries = ts_supertype_map_entries\<rparr>"

lemma language_fields [simp]:
  "token_count (tree_sitter_rk iswspace uninit) = 222"
  "state_count (tree_sitter_rk iswspace uninit) = 10545"
  "lex_modes (tree_sitter_rk iswspace uninit) = ts_lex_modes"
  "lex_fn (tree_sitter_rk iswspace uninit) = ts_lex"
  "keyword_lex_fn (tree_sitter_rk iswspace uninit) = ts_lex_keywords"
  "keyword_capture_token (tree_sitter_rk iswspace uninit) = sym_identifier"
  "external_scanner_states (tree_sitter_rk iswspace uninit) = ts_external_scanner_states"
  "external_scanner_symbol_map (tree_sitter_rk iswspace uninit) = ts_external_scanner_symbol_map"
  "external_scanner_scan (tree_sitter_rk iswspace uninit) =
     tree_sitter_rk_external_scanner_scan iswspace uninit"
  "reserved_words (tree_sitter_rk iswspace uninit) = ts_reserved_words"
  by (simp_all add: tree_sitter_rk_def TOKEN_COUNT_def STATE_COUNT_def)

text \<open>
  What a call is given in a parser state: the mode of the state, and the row of the external scanner
  that the mode names.
\<close>

definition state_mode :: "'s TSLanguage \<Rightarrow> nat \<Rightarrow> TSLexerMode" where
  "state_mode lang p = lex_modes lang ! p"

definition state_valid_symbols :: "'s TSLanguage \<Rightarrow> nat \<Rightarrow> TokenType \<Rightarrow> bool" where
  "state_valid_symbols lang p token =
     external_scanner_states lang ! external_lex_state (state_mode lang p) ! TokenType_value token"

section \<open>Every parser state\<close>

lemma state_mode_ok: "p < 10545 \<Longrightarrow> mode_ok (state_mode (tree_sitter_rk iswspace uninit) p)"
  using ts_lex_modes_ok by (simp add: state_mode_def list_all_length)

lemma scanner_rows:
  "ts_external_scanner_states ! 1 ! TokenType_value token"
  "ts_external_scanner_states ! 2 ! TokenType_value token \<longleftrightarrow>
     token \<in> {C_STYLE_COMMENT, PASCAL_STYLE_COMMENT, PRAGMA}"
  by (cases token; simp add: ts_external_scanner_states_def ts_external_tokens EXTERNAL_TOKEN_COUNT_def
      numeral_eq_Suc)+

lemma state_valid:
  fixes lang :: "'s TSLanguage"
  assumes "p < 10545" and lang: "lang = tree_sitter_rk iswspace uninit"
  shows "state_valid_symbols lang p token \<longleftrightarrow>
    token \<in> {C_STYLE_COMMENT, PASCAL_STYLE_COMMENT, PRAGMA} \<or> external_lex_state (state_mode lang p) = 1"
proof -
  have "mode_ok (state_mode lang p)"
    unfolding lang by (rule state_mode_ok[OF assms(1)])
  then have row: "external_lex_state (state_mode lang p) = 1 \<or> external_lex_state (state_mode lang p) = 2"
    by (simp add: mode_ok_def)
  have "external_scanner_states lang = ts_external_scanner_states"
    by (simp add: lang)
  with row show ?thesis
    by (elim disjE) (simp_all add: state_valid_symbols_def scanner_rows del: One_nat_def)
qed

section \<open>The properties of the language\<close>

text \<open>
  In each of the 10545 states of the parser, on every input, the lexer of the language called with
  the state's mode returns the longest token the automaton of its table finds from the mode's state.
\<close>

lemma every_state_lexes:
  fixes lang :: "'s TSLanguage"
  assumes "lang = tree_sitter_rk iswspace uninit" and "p < state_count lang"
    and "lexer_contract L view" and "token_ready view s xs"
  shows "(\<exists>r s'. lex_fn lang L (lex_state (state_mode lang p)) s = Some (r, s')) \<and>
    (scanned view (lex_fn lang L (lex_state (state_mode lang p)) s) y b e \<longleftrightarrow>
      b = dropWhile (skips ts_lex_cases (lex_state (state_mode lang p))) xs \<and>
      (if b = [] then end_token ts_lex_cases (lex_state (state_mode lang p)) = Some (y, e)
       else longest_token ts_lex_cases (lex_state (state_mode lang p)) b y e))"
proof -
  have "p < 10545"
    using assms(1,2) by simp
  then have "mode_ok (state_mode lang p)"
    unfolding assms(1) by (rule state_mode_ok)
  then have "lex_state (state_mode lang p) < 220"
    by (auto simp: mode_ok_def used_lex_states_def)
  moreover have "lex_fn lang = ts_lex"
    by (simp add: assms(1))
  ultimately show ?thesis
    using start_lexer_scanned[OF assms(3) lex.lexer_table_axioms assms(4)]
      start_lexer_returns[OF assms(3) lex.lexer_table_axioms assms(4)]
    by (simp add: ts_lex_def)
qed

lemma state_lex_state:
  fixes lang :: "'s TSLanguage"
  assumes "lang = tree_sitter_rk iswspace uninit" and "p < state_count lang"
  shows "lex_state (state_mode lang p) \<in> set lex_states"
proof -
  have "p < 10545"
    using assms by simp
  then have "mode_ok (state_mode lang p)"
    unfolding assms(1) by (rule state_mode_ok)
  then show ?thesis
    by (simp add: mode_ok_def used_lex_states_def lex_states_value)
qed

text \<open>
  C3. In each of the 10545 states of the parser, on every input, the lexer of the language skips white
  space and returns the longest word that the grammar's expressions for the tokens of the state's lex
  state spell, as the first token that spells it; at the end of the input it returns the end symbol
  where the state expects one.
\<close>

theorem every_state_reads_grammar_tokens:
  fixes lang :: "'s TSLanguage"
  assumes "lang = tree_sitter_rk iswspace uninit" and "p < state_count lang"
    and "lexer_contract L view" and "token_ready view s xs" and "q = lex_state (state_mode lang p)"
  shows "scanned view (lex_fn lang L q s) y b e \<longleftrightarrow>
    b = dropWhile (skipped q) xs \<and>
    (if b = [] then end_symbol q = Some y \<and> e = [] else longest_word (state_tokens q) b y e)"
proof -
  have "q \<in> set lex_states"
    unfolding assms(5) by (rule state_lex_state[OF assms(1,2)])
  moreover have "lex_fn lang = ts_lex"
    by (simp add: assms(1))
  ultimately show ?thesis
    using lex_state_scanned[OF assms(3,4)] by simp
qed

theorem every_state_reads_grammar_tokens_witness:
  "scanned id (lex_fn (tree_sitter_rk c_iswspace [] :: lexer_view TSLanguage) buffer_lexer 63
      (open_buffer (map code '' ''))) ts_builtin_sym_end [] []"
proof -
  let ?lang = "tree_sitter_rk c_iswspace [] :: lexer_view TSLanguage"
  have "63 = lex_state (state_mode ?lang 1)"
    by (simp add: state_mode_def ts_lex_modes_def ts_lex_modes_1_def)
  note read = every_state_reads_grammar_tokens[OF refl _ buffer.lexer_contract_axioms token_ready_buffer this]
  show ?thesis
    by (subst read) (simp_all add: skipped_def end_symbol_def char_simps)
qed

text \<open>
  C2. Comments are read in every state of the parser: with the tokens the state's row lets through,
  the scanner finds a comment of either style exactly when a balanced sequence of nested comments and
  text and the closing delimiter follow the opening one.
\<close>

theorem comments_in_every_state:
  fixes lang :: "'s TSLanguage"
  assumes "lang = tree_sitter_rk iswspace uninit" and "p < state_count lang"
    and "lexer_contract L view" and "wspace_class iswspace" and "length uninit = 16"
    and "scan_ready view s (ws @ c # code CHR ''*'' # xs)" and "list_all iswspace ws"
    and "comment_style c = Some (opn, cls, token)"
  shows "scanned view (external_scanner_scan lang L (state_valid_symbols lang p) s)
      (TokenType_value token) (c # code CHR ''*'' # xs) e \<longleftrightarrow>
    (\<exists>body us. delimiters opn cls xs = body @ Closing # us \<and> balanced body \<and> e = spell opn cls us)"
proof -
  have "p < 10545"
    using assms(1,2) by simp
  moreover have "token \<in> {C_STYLE_COMMENT, PASCAL_STYLE_COMMENT, PRAGMA}"
    using assms(8) by (auto simp: comment_style_def split: if_splits)
  ultimately have valid: "state_valid_symbols lang p token"
    using state_valid[OF _ assms(1)] by blast
  have "external_scanner_scan lang = tree_sitter_rk_external_scanner_scan iswspace uninit"
    by (simp add: assms(1))
  then show ?thesis
    using assms(3-8) valid by (simp only:) (rule comment_found)
qed

theorem comments_in_every_state_witness:
  "scanned id
     (external_scanner_scan (tree_sitter_rk c_iswspace (replicate 16 0)) buffer_lexer
       (state_valid_symbols (tree_sitter_rk c_iswspace (replicate 16 0) :: lexer_view TSLanguage) 4711)
       (open_buffer ([] @ code CHR ''('' # code CHR ''*'' # map code ''a*)b'')))
     (TokenType_value PASCAL_STYLE_COMMENT) (code CHR ''('' # code CHR ''*'' # map code ''a*)b'')
     (map code ''b'')"
proof -
  let ?o = "code CHR ''(''" and ?c = "code CHR '')''"
  have "balanced [Text (code CHR ''a'')]"
    by (auto intro: balanced.intros)
  moreover have "delimiters ?o ?c (map code ''a*)b'') =
      [Text (code CHR ''a'')] @ Closing # [Text (code CHR ''b'')]"
    by (simp add: char_simps)
  ultimately have "\<exists>body us. delimiters ?o ?c (map code ''a*)b'') = body @ Closing # us \<and>
      balanced body \<and> map code ''b'' = spell ?o ?c us"
    by (intro exI[of _ "[Text (code CHR ''a'')]"] exI[of _ "[Text (code CHR ''b'')]"]) simp
  then show ?thesis
    by (subst comments_in_every_state[where opn = ?o and cls = ?c, OF refl _ buffer.lexer_contract_axioms
          c_space.wspace_class_axioms length_replicate scan_ready_buffer])
      (simp_all add: comment_style_def del: delimiters.simps spell.simps)
qed

text \<open>
  In every state of the parser the scanner may return the two comments and the pragma, and in the
  states whose row is the first, those an expression can start in, the two signs as well.
\<close>

lemma valid_symbols_of_state:
  fixes lang :: "'s TSLanguage"
  assumes "lang = tree_sitter_rk iswspace uninit" and "p < state_count lang"
  shows "Collect (state_valid_symbols lang p) =
    (if external_lex_state (state_mode lang p) = 1 then UNIV
     else {C_STYLE_COMMENT, PASCAL_STYLE_COMMENT, PRAGMA})"
proof -
  have "p < 10545"
    using assms by simp
  note valid = state_valid[OF this assms(1)]
  show ?thesis
    by (auto simp: valid)
qed

primrec token_symbol :: "TokenType \<Rightarrow> TSSymbol" where
  "token_symbol C_STYLE_COMMENT = sym_c_style_comment"
| "token_symbol PASCAL_STYLE_COMMENT = sym_pascal_style_comment"
| "token_symbol PRAGMA = sym_pragma"
| "token_symbol MINUS_BEFORE_BASE = sym__minus_before_base"
| "token_symbol PLUS_BEFORE_BASE = sym__plus_before_base"

text \<open>
  The token types of \<open>scanner.c\<close> are numbered as the table of \<open>parser.c\<close> that turns them into
  symbols expects: each is the symbol of its own name, no two are the same symbol, and all are tokens of
  the language.
\<close>

lemma external_symbols_agree:
  "ts_external_scanner_symbol_map ! TokenType_value token = token_symbol token \<and>
   inj token_symbol \<and> token_symbol token < token_count (tree_sitter_rk iswspace uninit)"
proof -
  note numbers = sym_c_style_comment_def sym_pascal_style_comment_def sym_pragma_def
    sym__minus_before_base_def sym__plus_before_base_def
  have "ts_external_scanner_symbol_map ! TokenType_value token = token_symbol token"
    by (cases token) (simp_all add: ts_external_scanner_symbol_map_def ts_external_tokens
        EXTERNAL_TOKEN_COUNT_def numeral_eq_Suc)
  moreover have "inj token_symbol"
  proof (rule injI)
    fix x y
    assume "token_symbol x = token_symbol y"
    then show "x = y"
      by (cases x; cases y) (simp_all add: numbers)
  qed
  moreover have "token_symbol token < 222"
    by (cases token) (simp_all add: numbers)
  ultimately show ?thesis
    by simp
qed

section \<open>Reserved words\<close>

text \<open>The tokens of the keyword lexer, each as a fact about its own symbol.\<close>

definition keyword_tokens :: "TSSymbol set" where
  "keyword_tokens = snd ` set keyword_spellings"

lemma keyword_tokens_all: "list_all (\<lambda>(sp, y). y \<in> keyword_tokens) keyword_spellings"
  by (force simp: list_all_iff keyword_tokens_def)

lemmas keyword_token = keyword_tokens_all [unfolded keyword_spellings_def entry_simps]

definition reserved_ok :: "TSSymbol list \<Rightarrow> bool" where
  "reserved_ok ws \<longleftrightarrow>
     length ws \<le> 65 \<and> list_all (\<lambda>y. y = anon_sym_PERCENT \<or> y \<in> keyword_tokens) ws"

lemma reserved_words_ok:
  "\<exists>wss. ts_reserved_words = map (\<lambda>ws. ws @ replicate (65 - length ws) 0) wss \<and> length wss = 48 \<and>
     list_all reserved_ok wss"
  unfolding ts_reserved_words_def
  by (intro exI conjI, rule refl)
    (simp_all add: reserved_ok_def ts_reserved_words_parts keyword_token)

text \<open>
  C32. Each of the 48 sets of reserved words fills a row of 65 entries, and every word in them but \<open>%\<close>
  is a keyword that \<open>ts_lex_keywords\<close> finds: no set reserves a word the lexers cannot tell from an
  identifier.
\<close>

theorem reserved_words_are_keywords:
  "length (reserved_words (tree_sitter_rk iswspace uninit)) = 48 \<and>
   length ` set (reserved_words (tree_sitter_rk iswspace uninit)) = {65} \<and>
   \<Union> (set ` set (reserved_words (tree_sitter_rk iswspace uninit))) \<subseteq>
     {0, anon_sym_PERCENT} \<union> {y. \<exists>w. accepts ts_lex_keywords_cases 0 w y}"
proof -
  obtain wss where wss: "ts_reserved_words = map (\<lambda>ws. ws @ replicate (65 - length ws) 0) wss"
      "length wss = 48" "list_all reserved_ok wss"
    using reserved_words_ok by blast
  have "\<exists>w. accepts ts_lex_keywords_cases 0 w y" if "y \<in> keyword_tokens" for y
  proof -
    from that obtain sp where "(sp, y) \<in> set keyword_spellings"
      by (auto simp: keyword_tokens_def)
    moreover have "spells sp (map code (case sp of Exact k \<Rightarrow> k | Any_Case k \<Rightarrow> k))"
      by (cases sp) (auto simp: list_all2_conv_all_nth)
    ultimately show ?thesis
      unfolding keyword_language by blast
  qed
  then have "set ws \<subseteq> {0, anon_sym_PERCENT} \<union> {y. \<exists>w. accepts ts_lex_keywords_cases 0 w y}"
    if "ws \<in> set wss" for ws
    using that wss(3) by (auto simp: list_all_iff reserved_ok_def)
  moreover have "length ws \<le> 65" if "ws \<in> set wss" for ws
    using that wss(3) by (auto simp: list_all_iff reserved_ok_def)
  moreover have "wss \<noteq> []"
    using wss(2) by auto
  ultimately show ?thesis
    using wss(2) by (auto simp: wss(1) image_iff) (metis all_not_in_conv set_empty)+
qed

end
