(* ===== verification/Token_Names.thy ===== *)
theory Token_Names
  imports Symbol_Properties Language
begin

text \<open>
  The names of the tokens against the lexers: an anonymous token, one that a tree shows by its text,
  is named by a text from which the lexers read this token.
\<close>

definition anonymous :: "TSSymbol \<Rightarrow> bool" where
  "anonymous y \<longleftrightarrow> visible (metadata y) \<and> \<not> named (metadata y)"

primrec spelling_text :: "spelling \<Rightarrow> string" where
  "spelling_text (Any_Case k) = k"
| "spelling_text (Exact k) = k"

lemma spells_text: "spells sp (map code (spelling_text sp))"
  by (cases sp) (auto simp: list_all2_conv_all_nth)

lemma keyword_names:
  "list_all (\<lambda>(sp, y). anonymous y \<longrightarrow> symbol_name y = spelling_text sp) keyword_spellings"
  unfolding keyword_spellings_def by (simp add: anonymous_def cong: list_all_weak)

text \<open>The anonymous tokens that are no keywords, and a lex state that reads each.\<close>

definition direct_tokens :: "(TSSymbol \<times> TSStateId) list" where
  "direct_tokens =
    [(anon_sym_COLON_EQ, 0), (anon_sym_EQ, 0), (anon_sym_COLON, 0), (anon_sym_EQ_GT, 0),
     (anon_sym_COMMA, 0), (anon_sym_LBRACE, 0), (anon_sym_RBRACE, 0), (anon_sym_LPAREN, 0),
     (anon_sym_RPAREN, 0), (anon_sym_POUND, 0), (aux_sym_bool_literal_with_string_token1, 0),
     (anon_sym_0, 0), (anon_sym_1, 0), (anon_sym_PLUS, 0), (anon_sym_DASH, 0),
     (anon_sym_LBRACK, 0), (anon_sym_RBRACK, 0), (anon_sym_SEMI, 0), (anon_sym_DOT_DOT, 0),
     (anon_sym_PERCENT, 0), (anon_sym_STAR, 0), (anon_sym_DOT, 0), (anon_sym_DOT_DOT_DOT, 2),
     (anon_sym_SLASH, 0), (anon_sym_STAR_STAR, 0), (anon_sym_AMP, 0), (anon_sym_LT_GT, 0),
     (anon_sym_LT, 0), (anon_sym_GT, 0), (anon_sym_LT_EQ, 0), (anon_sym_GT_EQ, 0),
     (anon_sym_LPAREN_RPAREN, 0), (anon_sym_I, 0), (anon_sym_Q, 0), (anon_sym_M, 0),
     (sym__minus_before_base, 0), (sym__plus_before_base, 0)]"

lemma direct_read:
  "list_all (\<lambda>(y, q). q \<in> set lex_states \<and>
     accepts ts_lex_cases q (map code (symbol_name y)) (public_symbol y) \<and>
     symbol_name y \<noteq> [] \<and> \<not> blank (hd (map code (symbol_name y)))) direct_tokens"
  by (simp add: direct_tokens_def lex_states_value accepts_def
      accepting_def delta_def state_goto_def lex_lookup char_simps)

definition direct_token :: "TSSymbol \<Rightarrow> bool" where
  "direct_token y \<longleftrightarrow> y \<in> fst ` set direct_tokens"

lemma direct_tokens_direct: "list_all (\<lambda>(y, q). direct_token y) direct_tokens"
  by (force simp: list_all_iff direct_token_def)

lemmas direct_token_facts = direct_tokens_direct [unfolded direct_tokens_def entry_simps]

lemma anonymous_tokens:
  "list_all (\<lambda>y. anonymous y \<longrightarrow> y \<in> keyword_tokens \<or> direct_token y) symbols"
  unfolding symbols_value
  by (simp add: anonymous_def keyword_token direct_token_facts cong: list_all_weak)

lemma direct_scanned:
  assumes "lexer_contract L view" and "token_ready view s xs" and "q \<in> set lex_states"
    and "accepts ts_lex_cases q xs y" and "xs \<noteq> []" and "\<not> blank (hd xs)"
  shows "scanned view (ts_lex L q s) y xs []"
proof -
  have "dropWhile (skipped q) xs = xs"
    using assms(5,6) by (cases xs) (simp_all add: skipped_def)
  then show ?thesis
    using assms(4,5) longest_word_whole lex_state_accepts[OF assms(3)]
    by (simp add: lex_state_scanned[OF assms(1-3)])
qed

text \<open>
  C20. Printing a token and reading it back: for every anonymous symbol of the language, the lexers
  read its name as this token, whole. \<open>ts_lex\<close> finds the symbol the language shows for it in one of
  the lex states in use, or it finds an identifier and \<open>ts_lex_keywords\<close> the symbol itself.
\<close>

theorem anonymous_name_reads_back:
  assumes "lexer_contract L view" and "token_ready view s w" and "w = map code (symbol_name y)"
    and "y < SYMBOL_COUNT + ALIAS_COUNT" and "visible (metadata y)" and "\<not> named (metadata y)"
  shows "\<exists>q \<in> set lex_states.
    scanned view (ts_lex L q s) (public_symbol y) w [] \<or>
    scanned view (ts_lex L q s) sym_identifier w [] \<and> scanned view (ts_lex_keywords L 0 s) y w []"
proof -
  have y: "anonymous y" "y \<in> set symbols"
    using assms(4-6) by (simp_all add: anonymous_def symbols_upt SYMBOL_COUNT_def ALIAS_COUNT_def)
  then consider sp where "(sp, y) \<in> set keyword_spellings" | q where "(y, q) \<in> set direct_tokens"
    using anonymous_tokens by (auto simp: list_all_iff keyword_tokens_def direct_token_def)
  then show ?thesis
  proof cases
    case 1
    then have "spells sp w"
      using keyword_names y(1) spells_text[of sp] by (fastforce simp: list_all_iff assms(3))
    from keyword_read[OF assms(1) _ _ _ 1 this, of s "[]" "[]" 1] assms(2) show ?thesis
      by (auto simp: word_states_def word_ends_def lex_states_value)
  next
    case 2
    then have q: "q \<in> set lex_states" "accepts ts_lex_cases q w (public_symbol y)"
        "w \<noteq> []" "\<not> blank (hd w)"
      using direct_read by (fastforce simp: list_all_iff assms(3))+
    then show ?thesis
      using direct_scanned[OF assms(1,2)] by blast
  qed
qed

theorem anonymous_name_reads_back_witness:
  "\<exists>q \<in> set lex_states.
     scanned id (ts_lex buffer_lexer q (open_buffer (map code ''<='')))
       anon_sym_LT_EQ (map code ''<='') [] \<or>
     scanned id (ts_lex buffer_lexer q (open_buffer (map code ''<='')))
       sym_identifier (map code ''<='') [] \<and>
     scanned id (ts_lex_keywords buffer_lexer 0 (open_buffer (map code ''<='')))
       anon_sym_LT_EQ (map code ''<='') []"
proof -
  have "anon_sym_LT_EQ < SYMBOL_COUNT + ALIAS_COUNT"
    by (simp add: symbol_numbers SYMBOL_COUNT_def ALIAS_COUNT_def)
  moreover have "symbol_name anon_sym_LT_EQ = ''<=''" "public_symbol anon_sym_LT_EQ = anon_sym_LT_EQ"
      "metadata anon_sym_LT_EQ = Metadata True False False"
    by simp_all
  ultimately show ?thesis
    using anonymous_name_reads_back[OF buffer.lexer_contract_axioms token_ready_buffer refl, of anon_sym_LT_EQ]
    by simp
qed

end
