(* ===== verification/Row_Tokens.thy ===== *)
theory Row_Tokens
  imports Parse_Cells Token_Names
begin

text \<open>
  The tokens of the rows of the parse table can be read: in each of the modes of these rows there is
  an input that the lexers or the external scanner read as the token.
\<close>

section \<open>Reading a token in a state\<close>

text \<open>
  A token of the language in a state, as the runtime asks for it: the main lexer finds it, or it finds
  the word that the keyword lexer knows, or the external scanner does. The token starts with the input
  and ends before \<open>e\<close>.
\<close>

definition token_read ::
  "lexer_view TSLanguage \<Rightarrow> nat \<Rightarrow> TSSymbol \<Rightarrow> code_point list \<Rightarrow> code_point list \<Rightarrow> bool" where
  "token_read lang p y xs e \<longleftrightarrow>
     (let s = open_buffer xs; q = lex_state (state_mode lang p) in
      scanned id (lex_fn lang buffer_lexer q s) y xs e \<or>
      scanned id (lex_fn lang buffer_lexer q s) (keyword_capture_token lang) xs e \<and>
        scanned id (keyword_lex_fn lang buffer_lexer 0 s) y xs e \<or>
      (\<exists>token. y = external_scanner_symbol_map lang ! TokenType_value token \<and>
        scanned id (external_scanner_scan lang buffer_lexer (state_valid_symbols lang p) s)
          (TokenType_value token) xs e))"

section \<open>Words for the tokens of the main lexer\<close>

text \<open>For each lex state of the rows, a word for each of its tokens that is no keyword.\<close>

definition samples_0 :: "(TSSymbol \<times> string) list" where
  "samples_0 =
    [(sym_identifier, ''A''), (anon_sym_COLON_EQ, '':=''), (anon_sym_EQ, ''=''),
     (anon_sym_COLON, '':''), (anon_sym_EQ_GT, ''=>''), (anon_sym_COMMA, '',''),
     (sym_line_comment, ''//''), (anon_sym_LBRACE, ''{''), (anon_sym_RBRACE, ''}''),
     (anon_sym_LPAREN, ''(''), (anon_sym_RPAREN, '')''), (sym_pragma_string, [CHR 0x27, CHR 0x27]),
     (aux_sym_test_pragma_token1, ''{test}''), (aux_sym_once_pragma_token1, ''{once}''),
     (aux_sym_must_call_pragma_token1, ''{must_call}''),
     (aux_sym_export_pragma_token1, ''{export}''), (anon_sym_POUND, ''#''),
     (sym__explicit_signed_int, ''+0''), (sym_binary_int, ''2#0''), (sym_octal_int, ''8#0''),
     (sym__explicit_signed_real, ''+0E0''), (aux_sym_bool_literal_with_string_token1, ''BOOL#''),
     (anon_sym_0, ''0''), (anon_sym_1, ''1''), (sym_d_byte_char_str, [CHR 0x22, CHR 0x22]),
     (aux_sym_time_token1, ''T#''), (anon_sym_PLUS, ''+''), (anon_sym_DASH, ''-''),
     (anon_sym_LBRACK, ''[''), (anon_sym_RBRACK, '']''), (anon_sym_SEMI, '';''),
     (anon_sym_DOT_DOT, ''..''), (anon_sym_PERCENT, ''%''), (anon_sym_STAR, ''*''),
     (anon_sym_DOT, ''.''), (anon_sym_CARET, ''^''), (anon_sym_SLASH, ''/''),
     (anon_sym_STAR_STAR, ''**''), (anon_sym_AMP, ''&''), (anon_sym_PIPE, ''|''),
     (anon_sym_LT_GT, ''<>''), (anon_sym_LT, ''<''), (anon_sym_GT, ''>''), (anon_sym_LT_EQ, ''<=''),
     (anon_sym_GT_EQ, ''>=''), (anon_sym_LPAREN_RPAREN, ''()''), (anon_sym_I, ''I''),
     (anon_sym_Q, ''Q''), (anon_sym_M, ''M'')]"

definition samples_1 :: "(TSSymbol \<times> string) list" where
  "samples_1 =
    [(sym_identifier, ''A''), (anon_sym_EQ, ''=''), (sym_line_comment, ''//''),
     (anon_sym_LBRACE, ''{''), (anon_sym_LPAREN, ''(''), (aux_sym_test_pragma_token1, ''{test}''),
     (aux_sym_once_pragma_token1, ''{once}''), (aux_sym_must_call_pragma_token1, ''{must_call}''),
     (aux_sym_export_pragma_token1, ''{export}''), (anon_sym_POUND, ''#''),
     (sym_unsigned_int, ''0''), (sym__explicit_signed_int, ''+0''), (sym_binary_int, ''2#0''),
     (sym_octal_int, ''8#0''), (sym_hex_int, ''16#0''), (sym__explicit_signed_real, ''+0E0''),
     (sym_real_value, ''0E0''), (aux_sym_bool_literal_with_string_token1, ''BOOL#''),
     (sym_s_byte_char_str, [CHR 0x27, CHR 0x27]), (sym_d_byte_char_str, [CHR 0x22, CHR 0x22]),
     (aux_sym_time_token1, ''T#''), (anon_sym_PLUS, ''+''), (anon_sym_DASH, ''-''),
     (aux_sym_ltime_token1, ''LT#''), (aux_sym_tod_token1, ''TOD#''),
     (aux_sym_ltod_token1, ''LTOD#''), (aux_sym_short_date_token1, ''D#''),
     (aux_sym_long_date_token1, ''LD#''), (aux_sym_short_date_and_time_token1, ''DT#''),
     (aux_sym_long_date_and_time_token1, ''LDT#''), (anon_sym_LBRACK, ''[''),
     (anon_sym_SEMI, '';''), (anon_sym_PERCENT, ''%''), (anon_sym_STAR, ''*''),
     (anon_sym_DOT, ''.''), (anon_sym_CARET, ''^''), (anon_sym_DOT_DOT_DOT, ''...''),
     (anon_sym_SLASH, ''/''), (anon_sym_STAR_STAR, ''**''), (anon_sym_AMP, ''&''),
     (anon_sym_LT_GT, ''<>''), (anon_sym_LT, ''<''), (anon_sym_GT, ''>''), (anon_sym_LT_EQ, ''<=''),
     (anon_sym_GT_EQ, ''>=''), (anon_sym_LPAREN_RPAREN, ''()'')]"

definition samples_2 :: "(TSSymbol \<times> string) list" where
  "samples_2 =
    [(sym_identifier, ''A''), (anon_sym_EQ, ''=''), (sym_line_comment, ''//''),
     (anon_sym_LBRACE, ''{''), (anon_sym_LPAREN, ''(''), (aux_sym_test_pragma_token1, ''{test}''),
     (aux_sym_once_pragma_token1, ''{once}''), (aux_sym_must_call_pragma_token1, ''{must_call}''),
     (aux_sym_export_pragma_token1, ''{export}''), (anon_sym_POUND, ''#''),
     (sym_unsigned_int, ''0''), (sym__explicit_signed_int, ''+0''), (sym_binary_int, ''2#0''),
     (sym_octal_int, ''8#0''), (sym_hex_int, ''16#0''), (sym__explicit_signed_real, ''+0E0''),
     (sym_real_value, ''0E0''), (aux_sym_bool_literal_with_string_token1, ''BOOL#''),
     (sym_s_byte_char_str, [CHR 0x27, CHR 0x27]), (sym_d_byte_char_str, [CHR 0x22, CHR 0x22]),
     (aux_sym_time_token1, ''T#''), (anon_sym_PLUS, ''+''), (anon_sym_DASH, ''-''),
     (aux_sym_ltime_token1, ''LT#''), (aux_sym_tod_token1, ''TOD#''),
     (aux_sym_ltod_token1, ''LTOD#''), (aux_sym_short_date_token1, ''D#''),
     (aux_sym_long_date_token1, ''LD#''), (aux_sym_short_date_and_time_token1, ''DT#''),
     (aux_sym_long_date_and_time_token1, ''LDT#''), (anon_sym_LBRACK, ''[''),
     (anon_sym_SEMI, '';''), (anon_sym_PERCENT, ''%''), (anon_sym_STAR, ''*''),
     (anon_sym_DOT, ''.''), (anon_sym_CARET, ''^''), (anon_sym_DOT_DOT_DOT, ''...''),
     (anon_sym_SLASH, ''/''), (anon_sym_STAR_STAR, ''**''), (anon_sym_AMP, ''&''),
     (anon_sym_LT_GT, ''<>''), (anon_sym_LT, ''<''), (anon_sym_GT, ''>''), (anon_sym_LT_EQ, ''<=''),
     (anon_sym_GT_EQ, ''>='')]"

definition samples_4 :: "(TSSymbol \<times> string) list" where
  "samples_4 =
    [(sym_identifier, ''A''), (sym_line_comment, ''//''), (anon_sym_LBRACE, ''{''),
     (anon_sym_LPAREN, ''(''), (anon_sym_RPAREN, '')''), (aux_sym_test_pragma_token1, ''{test}''),
     (aux_sym_once_pragma_token1, ''{once}''), (aux_sym_must_call_pragma_token1, ''{must_call}''),
     (aux_sym_export_pragma_token1, ''{export}''), (sym_unsigned_int, ''0''),
     (sym__explicit_signed_int, ''+0''), (sym_binary_int, ''2#0''), (sym_octal_int, ''8#0''),
     (sym_hex_int, ''16#0''), (sym__explicit_signed_real, ''+0E0''), (sym_real_value, ''0E0''),
     (aux_sym_bool_literal_with_string_token1, ''BOOL#''),
     (sym_s_byte_char_str, [CHR 0x27, CHR 0x27]), (sym_d_byte_char_str, [CHR 0x22, CHR 0x22]),
     (aux_sym_time_token1, ''T#''), (anon_sym_PLUS, ''+''), (anon_sym_DASH, ''-''),
     (aux_sym_ltime_token1, ''LT#''), (aux_sym_tod_token1, ''TOD#''),
     (aux_sym_ltod_token1, ''LTOD#''), (aux_sym_short_date_token1, ''D#''),
     (aux_sym_long_date_token1, ''LD#''), (aux_sym_short_date_and_time_token1, ''DT#''),
     (aux_sym_long_date_and_time_token1, ''LDT#''), (anon_sym_LBRACK, ''[''),
     (anon_sym_RBRACK, '']''), (anon_sym_SEMI, '';''), (anon_sym_PERCENT, ''%''),
     (anon_sym_STAR, ''*''), (anon_sym_DOT_DOT_DOT, ''...'')]"

definition samples_63 :: "(TSSymbol \<times> string) list" where
  "samples_63 =
    [(sym_identifier, ''A''), (anon_sym_COLON, '':''), (sym_line_comment, ''//''),
     (anon_sym_LBRACE, ''{''), (aux_sym_test_pragma_token1, ''{test}''),
     (aux_sym_once_pragma_token1, ''{once}''), (aux_sym_must_call_pragma_token1, ''{must_call}''),
     (aux_sym_export_pragma_token1, ''{export}''), (anon_sym_SEMI, '';''), (anon_sym_PERCENT, ''%'')]"

definition sample_ok :: "TSStateId \<Rightarrow> TSSymbol \<times> string \<Rightarrow> bool" where
  "sample_ok q = (\<lambda>(y, x). x \<noteq> [] \<and> \<not> blank (hd (map code x)) \<and> accepts ts_lex_cases q (map code x) y)"

lemma letter_sample: "set_contains sym_identifier_character_set_1 685 65 = Some True"
  using identifier_start_ascii[of 65] by (simp add: identifier_start_def ascii_letter_def code_def)

lemmas sample_simps =
  sample_ok_def accepts_def accepting_def delta_def state_goto_def lex_lookup char_simps
  letter_sample

lemma samples_0_ok: "list_all (sample_ok 0) samples_0"
  unfolding samples_0_def by (simp add: sample_simps del: One_nat_def cong: list_all_weak)

lemma samples_1_ok: "list_all (sample_ok 1) samples_1"
  unfolding samples_1_def by (simp add: sample_simps del: One_nat_def cong: list_all_weak)

lemma samples_2_ok: "list_all (sample_ok 2) samples_2"
  unfolding samples_2_def by (simp add: sample_simps del: One_nat_def cong: list_all_weak)

lemma samples_4_ok: "list_all (sample_ok 4) samples_4"
  unfolding samples_4_def by (simp add: sample_simps del: One_nat_def cong: list_all_weak)

lemma samples_63_ok: "list_all (sample_ok 63) samples_63"
  unfolding samples_63_def by (simp add: sample_simps del: One_nat_def cong: list_all_weak)

lemma sample_read:
  assumes "q \<in> set lex_states" and "list_all (sample_ok q) samples" and "(y, x) \<in> set samples"
  shows "scanned id (ts_lex buffer_lexer q (open_buffer (map code x))) y (map code x) []"
  using assms
  by (intro direct_scanned[OF buffer.lexer_contract_axioms token_ready_buffer])
    (auto simp: list_all_iff sample_ok_def)

section \<open>Keywords, comments and signs\<close>

lemma keyword_token_read:
  assumes "y \<in> keyword_tokens" and "q \<in> set word_states"
  shows "\<exists>w. scanned id (ts_lex buffer_lexer q (open_buffer w)) sym_identifier w [] \<and>
    scanned id (ts_lex_keywords buffer_lexer 0 (open_buffer w)) y w []"
proof -
  obtain sp where sp: "(sp, y) \<in> set keyword_spellings"
    using assms(1) by (auto simp: keyword_tokens_def)
  show ?thesis
    using keyword_read[OF buffer.lexer_contract_axioms token_ready_buffer _ assms(2) sp spells_text,
        of "[]" "[]"]
    by (auto simp: word_ends_def)
qed

lemma comment_token_read:
  assumes "wspace_class iswspace" and "length uninit = 16" and "valid token"
    and "comment_style c = Some (opn, cls, token)"
  shows "\<exists>xs. scanned id
    (tree_sitter_rk_external_scanner_scan iswspace uninit buffer_lexer valid (open_buffer xs))
    (TokenType_value token) xs []"
proof -
  let ?xs = "[] @ c # code CHR ''*'' # [code CHR ''*'', cls]"
  have "delimiters opn cls [code CHR ''*'', cls] = [] @ Closing # []"
    by simp
  moreover have "balanced []"
    by (rule balanced.intros)
  moreover have "scan_ready id (open_buffer ?xs) ?xs"
    by (rule scan_ready_buffer) simp
  ultimately show ?thesis
    using comment_found[OF buffer.lexer_contract_axioms assms(1,2), of "open_buffer ?xs" "[]" c
        "[code CHR ''*'', cls]" opn cls token valid "[]"] assms(3,4)
    by fastforce
qed

lemma pragma_token_read:
  assumes "wspace_class iswspace" and "length uninit = 16" and "valid PRAGMA"
  shows "\<exists>xs. scanned id
    (tree_sitter_rk_external_scanner_scan iswspace uninit buffer_lexer valid (open_buffer xs))
    (TokenType_value PRAGMA) xs []"
proof -
  let ?xs = "[] @ code CHR ''{'' # [] @ map code ''x'' @ [code CHR ''}'']"
  have "scan_ready id (open_buffer ?xs) ?xs"
    by (rule scan_ready_buffer) simp
  moreover have "\<not> iswspace (hd (map code ''x'' @ [code CHR ''}''] @ [0]))"
    using wspace_class.not_iswspace_graphic[OF assms(1)] by (simp add: code_def)
  moreover have "pragma_body []"
    by (rule pragma_body.intros)
  ultimately show ?thesis
    using pragma_found[OF buffer.lexer_contract_axioms assms(1,2), of "open_buffer ?xs" "[]" "[]"
        "map code ''x''" "[code CHR ''}'']" valid "[]"] assms(3)
    by (fastforce simp: known_word_def KNOWN_PRAGMAS_def char_simps)
qed

lemma sign_token_read:
  assumes "wspace_class iswspace" and "length uninit = 16" and "valid token"
    and "c = code CHR ''-'' \<and> token = MINUS_BEFORE_BASE \<or> c = code CHR ''+'' \<and> token = PLUS_BEFORE_BASE"
  shows "\<exists>xs e. scanned id
    (tree_sitter_rk_external_scanner_scan iswspace uninit buffer_lexer valid (open_buffer xs))
    (TokenType_value token) xs e"
proof -
  let ?xs = "[] @ c # map code ''2#''"
  have "scan_ready id (open_buffer ?xs) ?xs"
    by (rule scan_ready_buffer) simp
  then show ?thesis
    using sign_found[OF buffer.lexer_contract_axioms assms(1,2), of "open_buffer ?xs" "[]" c
        "map code ''2#''" token valid "map code ''2#''"] assms(3,4)
    by fastforce
qed

lemma external_token_read:
  assumes "wspace_class iswspace" and "length uninit = 16" and "valid token"
  shows "\<exists>xs e. scanned id
    (tree_sitter_rk_external_scanner_scan iswspace uninit buffer_lexer valid (open_buffer xs))
    (TokenType_value token) xs e"
proof (cases token)
  case C_STYLE_COMMENT
  then show ?thesis
    using comment_token_read[where valid = valid and token = token and c = "code CHR ''/''", OF assms] by (auto simp: comment_style_def)
next
  case PASCAL_STYLE_COMMENT
  then show ?thesis
    using comment_token_read[where valid = valid and token = token and c = "code CHR ''(''", OF assms] by (auto simp: comment_style_def)
next
  case PRAGMA
  then show ?thesis
    using pragma_token_read[where valid = valid, OF assms(1,2)] assms(3) by blast
next
  case MINUS_BEFORE_BASE
  then show ?thesis
    using sign_token_read[where valid = valid and token = token, OF assms] by blast
next
  case PLUS_BEFORE_BASE
  then show ?thesis
    using sign_token_read[where valid = valid and token = token, OF assms] by blast
qed

text \<open>The end of the input, in the two lex states that accept it.\<close>

lemma end_token_read:
  assumes "q = 0 \<or> q = 63"
  shows "scanned id (ts_lex buffer_lexer q (open_buffer [])) ts_builtin_sym_end [] []"
proof -
  have "q \<in> set lex_states"
    using assms by (auto simp: lex_states_value)
  then show ?thesis
    using assms
    by (auto simp: lex_state_scanned[OF buffer.lexer_contract_axioms token_ready_buffer] end_symbol_def)
qed

end
