(* ===== verification/Parse_Rows.thy ===== *)
theory Parse_Rows
  imports Parse_Table_1 Parse_Table_2 Parse_Table_3 Parse_Table_4 Parse_Table_5 Parse_Table_6 Parse_Table_7 Parse_Table_8 Parse_Table_9 Row_Tokens Primary_States
begin

text \<open>
  The rows of the states 0 to 1347 of \<open>ts_parse_table\<close> together: each fits the mode of its state, so that
  the scanner and the lexers are asked for exactly what the parser can go on with.
\<close>

section \<open>The table\<close>

definition ts_parse_rows :: "parse_row list" where
  "ts_parse_rows =
     parse_rows_1 @ parse_rows_2 @ parse_rows_3 @ parse_rows_4 @ parse_rows_5 @ parse_rows_6 @
     parse_rows_7 @ parse_rows_8 @ parse_rows_9"

text \<open>The first rows of the table; a cell that is not named is 0.\<close>

definition ts_parse_table_rows :: "nat list list" where
  "ts_parse_table_rows = map (designated SYMBOL_COUNT 0) ts_parse_rows"

section \<open>Each row fits its mode\<close>

definition mode_tokens :: "(nat \<times> nat) \<Rightarrow> TSSymbol list" where
  "mode_tokens m =
     (case map_of
        [((0, 1), tokens_0_1), ((1, 1), tokens_1_1), ((2, 1), tokens_2_1), ((4, 1), tokens_4_1),
         ((4, 2), tokens_4_2), ((63, 2), tokens_63_2)] m of
        None \<Rightarrow> [] | Some ts \<Rightarrow> ts)"

text \<open>With the signs in a row, the scanner is asked for them: row 1 of its table, and not 2.\<close>

definition row_fits :: "TSLexerMode \<Rightarrow> parse_row \<Rightarrow> bool" where
  "row_fits m r \<longleftrightarrow>
     row_scan (mode_tokens (lex_state m, external_lex_state m)) 0 r =
       Some (length (if external_lex_state m = 1 then counted_tokens else extra_tokens))"

lemma row_fits_mode:
  "row_scan tokens_0_1 0 r = Some (Suc (Suc (Suc (Suc (Suc (Suc 0)))))) \<Longrightarrow> row_fits (Mode 0 (Suc 0) w) r"
  "row_scan tokens_1_1 0 r = Some (Suc (Suc (Suc (Suc (Suc (Suc 0)))))) \<Longrightarrow> row_fits (Mode (Suc 0) (Suc 0) w) r"
  "row_scan tokens_2_1 0 r = Some (Suc (Suc (Suc (Suc (Suc (Suc 0)))))) \<Longrightarrow> row_fits (Mode 2 (Suc 0) w) r"
  "row_scan tokens_4_1 0 r = Some (Suc (Suc (Suc (Suc (Suc (Suc 0)))))) \<Longrightarrow> row_fits (Mode 4 (Suc 0) w) r"
  "row_scan tokens_4_2 0 r = Some (Suc (Suc (Suc (Suc 0)))) \<Longrightarrow> row_fits (Mode 4 2 w) r"
  "row_scan tokens_63_2 0 r = Some (Suc (Suc (Suc (Suc 0)))) \<Longrightarrow> row_fits (Mode 63 2 w) r"
  by (simp_all add: row_fits_def mode_tokens_def counted_simps cong del: row_scan_weak)

lemma list_all2_weak: "list_all2 P xs ys = list_all2 P xs ys"
  by simp

lemma parse_rows_1_fit: "list_all2 row_fits ts_lex_modes_1 parse_rows_1"
  unfolding ts_lex_modes_1_def parse_rows_1_def
  by (simp add: row_fits_mode parse_rows_1_scan  cong: list_all2_weak)

lemma parse_rows_2_fit: "list_all2 row_fits ts_lex_modes_2 parse_rows_2"
  unfolding ts_lex_modes_2_def parse_rows_2_def
  by (simp add: row_fits_mode parse_rows_2_scan  cong: list_all2_weak)

lemma parse_rows_3_fit: "list_all2 row_fits ts_lex_modes_3 parse_rows_3"
  unfolding ts_lex_modes_3_def parse_rows_3_def
  by (simp add: row_fits_mode parse_rows_3_scan  cong: list_all2_weak)

lemma parse_rows_4_fit: "list_all2 row_fits ts_lex_modes_4 parse_rows_4"
  unfolding ts_lex_modes_4_def parse_rows_4_def
  by (simp add: row_fits_mode parse_rows_4_scan  cong: list_all2_weak)

lemma parse_rows_5_fit: "list_all2 row_fits ts_lex_modes_5 parse_rows_5"
  unfolding ts_lex_modes_5_def parse_rows_5_def
  by (simp add: row_fits_mode parse_rows_5_scan  cong: list_all2_weak)

lemma parse_rows_6_fit: "list_all2 row_fits ts_lex_modes_6 parse_rows_6"
  unfolding ts_lex_modes_6_def parse_rows_6_def
  by (simp add: row_fits_mode parse_rows_6_scan  cong: list_all2_weak)

lemma parse_rows_7_fit: "list_all2 row_fits ts_lex_modes_7 parse_rows_7"
  unfolding ts_lex_modes_7_def parse_rows_7_def
  by (simp add: row_fits_mode parse_rows_7_scan  cong: list_all2_weak)

lemma parse_rows_8_fit: "list_all2 row_fits ts_lex_modes_8 parse_rows_8"
  unfolding ts_lex_modes_8_def parse_rows_8_def
  by (simp add: row_fits_mode parse_rows_8_scan  cong: list_all2_weak)

lemma parse_rows_9_fit: "list_all2 row_fits (take 148 ts_lex_modes_9) parse_rows_9"
  unfolding ts_lex_modes_9_def parse_rows_9_def
  by (simp add: row_fits_mode parse_rows_9_scan )

lemma rows_fit: "list_all2 row_fits (take 1348 ts_lex_modes) ts_parse_rows"
proof -
  have modes: "take 1348 ts_lex_modes =
      ts_lex_modes_1 @ ts_lex_modes_2 @ ts_lex_modes_3 @ ts_lex_modes_4 @ ts_lex_modes_5 @
      ts_lex_modes_6 @ ts_lex_modes_7 @ ts_lex_modes_8 @ take 148 ts_lex_modes_9"
    by (simp add: ts_lex_modes_def ts_lex_modes_1_ok ts_lex_modes_2_ok ts_lex_modes_3_ok
        ts_lex_modes_4_ok ts_lex_modes_5_ok ts_lex_modes_6_ok ts_lex_modes_7_ok ts_lex_modes_8_ok
        ts_lex_modes_9_ok)
  show ?thesis
    unfolding modes ts_parse_rows_def
    by (intro list_all2_appendI parse_rows_1_fit parse_rows_2_fit parse_rows_3_fit parse_rows_4_fit
        parse_rows_5_fit parse_rows_6_fit parse_rows_7_fit parse_rows_8_fit parse_rows_9_fit)
qed

lemma length_rows: "length ts_parse_rows = 1348"
  using list_all2_lengthD[OF rows_fit] by (simp add: ts_lex_modes_ok)

lemma parse_table_length: "length ts_parse_table_rows = 1348"
  by (simp add: ts_parse_table_rows_def length_rows)

lemma row_fit: "p < 1348 \<Longrightarrow> row_fits (ts_lex_modes ! p) (ts_parse_rows ! p)"
  using list_all2_nthD2[OF rows_fit, of p] by (simp add: length_rows)

section \<open>What a cell holds\<close>

lemma table_cell:
  assumes "p < 1348" and "y < SYMBOL_COUNT"
  shows "ts_parse_table_rows ! p ! y = 0 \<and> y \<notin> fst ` set (ts_parse_rows ! p) \<or>
    (y, ts_parse_table_rows ! p ! y) \<in> set (ts_parse_rows ! p)"
  using designated_cases[OF assms(2), of 0 "ts_parse_rows ! p"] assms(1)
  by (simp add: ts_parse_table_rows_def length_rows)

definition mode_pair :: "nat \<Rightarrow> nat \<times> nat" where
  "mode_pair p = (lex_state (ts_lex_modes ! p), external_lex_state (ts_lex_modes ! p))"

lemma table_cell_ok:
  assumes "p < 1348" and "y < SYMBOL_COUNT"
  shows "ts_parse_table_rows ! p ! y = 0 \<or>
    cell_ok (mode_tokens (mode_pair p)) y (ts_parse_table_rows ! p ! y)"
  using table_cell[OF assms] row_fit[OF assms(1)] row_scan_cells
  by (fastforce simp: row_fits_def mode_pair_def list_all_iff)

lemma counted_cell:
  assumes "p < 1348" and "y \<in> set extra_tokens \<or> y \<in> set sign_tokens \<and> snd (mode_pair p) = 1"
  shows "(y, ts_parse_table_rows ! p ! y) \<in> set (ts_parse_rows ! p)"
proof -
  obtain n where scan: "row_scan (mode_tokens (mode_pair p)) 0 (ts_parse_rows ! p) = Some n"
      and n: "n = length (if snd (mode_pair p) = 1 then counted_tokens else extra_tokens)"
    using row_fit[OF assms(1)] by (simp add: row_fits_def mode_pair_def cong del: row_scan_weak)
  have "y \<in> (!) counted_tokens ` {..<n}"
    using assms(2) by (auto simp: n counted_simps lessThan_Suc)
  then have "y \<in> fst ` set (ts_parse_rows ! p)"
    using row_scan_counts[OF scan] by auto
  moreover have "y < SYMBOL_COUNT"
    using assms(2) extra_tokens_small sign_tokens_small by (fastforce simp: TOKEN_COUNT_def SYMBOL_COUNT_def)
  ultimately show ?thesis
    using table_cell[OF assms(1)] by blast
qed

lemma counted_cell_ok:
  assumes "p < 1348" and "y \<in> set extra_tokens \<or> y \<in> set sign_tokens \<and> snd (mode_pair p) = 1"
  shows "cell_ok (mode_tokens (mode_pair p)) y (ts_parse_table_rows ! p ! y)"
  using counted_cell[OF assms] row_fit[OF assms(1)] row_scan_cells
  by (fastforce simp: row_fits_def mode_pair_def list_all_iff)

lemma extra_cell: "p < 1348 \<Longrightarrow> y \<in> set extra_tokens \<Longrightarrow> ts_parse_table_rows ! p ! y = 3"
  using counted_cell_ok[of p y] extra_tokens_small[of y] by (simp add: cell_ok_def)

lemma action_index_nonzero: "action_index v \<Longrightarrow> v \<noteq> 0"
proof
  assume "action_index v" "v = 0"
  then show False
    by (simp add: action_index_def row_actions)
qed

lemma token_cell:
  assumes "p < 1348" and "y < TOKEN_COUNT"
  shows "ts_parse_table_rows ! p ! y = 0 \<or> action_index (ts_parse_table_rows ! p ! y)"
  using table_cell_ok[OF assms(1), of y] assms(2)
  by (auto simp: cell_ok_def TOKEN_COUNT_def SYMBOL_COUNT_def)

text \<open>The modes of the rows.\<close>

lemma sign_modes: "y \<in> set sign_tokens \<Longrightarrow> y \<in> set (mode_tokens m) \<Longrightarrow> snd m = 1"
proof -
  have "set sign_tokens \<inter> set tokens_4_2 = {}" "set sign_tokens \<inter> set tokens_63_2 = {}"
    by (simp_all add: sign_tokens_def tokens_4_2_def tokens_63_2_def extra_tokens_def
        plain_tokens_4_2_def plain_tokens_63_2_def token_numbers)
  then show "y \<in> set sign_tokens \<Longrightarrow> y \<in> set (mode_tokens m) \<Longrightarrow> snd m = 1"
    by (auto simp: mode_tokens_def split: if_splits)
qed

lemma sign_cell:
  assumes "p < 1348" and "y \<in> set sign_tokens"
  shows "ts_parse_table_rows ! p ! y \<noteq> 0 \<longleftrightarrow> snd (mode_pair p) = 1"
proof -
  have y: "y < SYMBOL_COUNT" "y < TOKEN_COUNT"
    using assms(2) sign_tokens_small by (fastforce simp: TOKEN_COUNT_def SYMBOL_COUNT_def)+
  show ?thesis
    using counted_cell_ok[of p y] table_cell_ok[OF assms(1) y(1)] sign_modes[OF assms(2), of "mode_pair p"] assms y(2)
    by (auto simp: cell_ok_def dest: action_index_nonzero)
qed

end
