(* ===== verification/Parse_Properties.thy ===== *)
theory Parse_Properties
  imports Parse_Rows
begin

text \<open>
  The large table of the parser against the lexers and the external scanner: the properties of its
  first 1348 states.
\<close>

section \<open>Every token of a row can be read\<close>

definition samples :: "TSStateId \<Rightarrow> (TSSymbol \<times> string) list" where
  "samples q =
     (case map_of [(0, samples_0), (1, samples_1), (2, samples_2), (4, samples_4), (63, samples_63)] q of
        None \<Rightarrow> [] | Some xs \<Rightarrow> xs)"

definition sampled :: "TSStateId \<Rightarrow> TSSymbol \<Rightarrow> bool" where
  "sampled q y \<longleftrightarrow> y \<in> fst ` set (samples q)"

lemma sampled_0: "list_all (\<lambda>(y, x). sampled 0 y) samples_0"
  by (force simp: list_all_iff sampled_def samples_def)

lemma sampled_1: "list_all (\<lambda>(y, x). sampled (Suc 0) y) samples_1"
  by (force simp: list_all_iff sampled_def samples_def)

lemma sampled_2: "list_all (\<lambda>(y, x). sampled 2 y) samples_2"
  by (force simp: list_all_iff sampled_def samples_def)

lemma sampled_4: "list_all (\<lambda>(y, x). sampled 4 y) samples_4"
  by (force simp: list_all_iff sampled_def samples_def)

lemma sampled_63: "list_all (\<lambda>(y, x). sampled 63 y) samples_63"
  by (force simp: list_all_iff sampled_def samples_def)

lemmas sampled_tokens =
  sampled_0 [unfolded samples_0_def entry_simps]
  sampled_1 [unfolded samples_1_def entry_simps]
  sampled_2 [unfolded samples_2_def entry_simps]
  sampled_4 [unfolded samples_4_def entry_simps]
  sampled_63 [unfolded samples_63_def entry_simps]

lemma sampled_read:
  assumes "sampled q y"
  shows "\<exists>x. scanned id (ts_lex buffer_lexer q (open_buffer (map code x))) y (map code x) []"
proof -
  obtain x where x: "(y, x) \<in> set (samples q)"
    using assms by (auto simp: sampled_def)
  then have "q \<in> {0, 1, 2, 4, 63}" and ok: "list_all (sample_ok q) (samples q)"
    using samples_0_ok samples_1_ok samples_2_ok samples_4_ok samples_63_ok
    by (auto simp: samples_def split: if_splits)
  then have "q \<in> set lex_states"
    by (auto simp: lex_states_value)
  from sample_read[OF this ok x] show ?thesis
    by blast
qed

definition readable :: "nat \<times> nat \<Rightarrow> TSSymbol \<Rightarrow> bool" where
  "readable m y \<longleftrightarrow>
     sampled (fst m) y \<or> y \<in> keyword_tokens \<and> fst m \<in> set word_states \<or>
     y \<in> token_symbol ` {C_STYLE_COMMENT, PASCAL_STYLE_COMMENT, PRAGMA} \<or>
     y \<in> set sign_tokens \<and> snd m = 1 \<or> y = ts_builtin_sym_end \<and> (fst m = 0 \<or> fst m = 63)"

lemma readable_cases:
  "sampled (fst m) y \<Longrightarrow> readable m y"
  "y \<in> keyword_tokens \<Longrightarrow> fst m \<in> set word_states \<Longrightarrow> readable m y"
  "readable m sym_c_style_comment" "readable m sym_pascal_style_comment" "readable m sym_pragma"
  "snd m = Suc 0 \<Longrightarrow> readable m sym__minus_before_base"
  "snd m = Suc 0 \<Longrightarrow> readable m sym__plus_before_base"
  "fst m = 0 \<or> fst m = 63 \<Longrightarrow> readable m ts_builtin_sym_end"
  by (simp_all add: readable_def sign_tokens_def)

lemma row_states_read_words:
  "0 \<in> set word_states" "(Suc 0) \<in> set word_states" "2 \<in> set word_states" "4 \<in> set word_states" "63 \<in> set word_states"
  by (simp_all add: word_states_def)

lemmas readable_simps = readable_cases row_states_read_words sampled_tokens keyword_token

lemma readable_0_1: "list_all (readable (0, (Suc 0))) tokens_0_1"
  unfolding tokens_0_1_def plain_tokens_0_1_def extra_tokens_def sign_tokens_def append.simps
  by (simp add: readable_simps cong: list_all_weak)

lemma readable_1_1: "list_all (readable ((Suc 0), (Suc 0))) tokens_1_1"
  unfolding tokens_1_1_def plain_tokens_1_1_def extra_tokens_def sign_tokens_def append.simps
  by (simp add: readable_simps cong: list_all_weak)

lemma readable_2_1: "list_all (readable (2, (Suc 0))) tokens_2_1"
  unfolding tokens_2_1_def plain_tokens_2_1_def extra_tokens_def sign_tokens_def append.simps
  by (simp add: readable_simps cong: list_all_weak)

lemma readable_4_1: "list_all (readable (4, (Suc 0))) tokens_4_1"
  unfolding tokens_4_1_def plain_tokens_4_1_def extra_tokens_def sign_tokens_def append.simps
  by (simp add: readable_simps cong: list_all_weak)

lemma readable_4_2: "list_all (readable (4, 2)) tokens_4_2"
  unfolding tokens_4_2_def plain_tokens_4_2_def extra_tokens_def append.simps
  by (simp add: readable_simps cong: list_all_weak)

lemma readable_63_2: "list_all (readable (63, 2)) tokens_63_2"
  unfolding tokens_63_2_def plain_tokens_63_2_def extra_tokens_def append.simps
  by (simp add: readable_simps cong: list_all_weak)

lemma mode_tokens_readable: "y \<in> set (mode_tokens m) \<Longrightarrow> readable m y"
  using readable_0_1 readable_1_1 readable_2_1 readable_4_1 readable_4_2 readable_63_2
  by (auto simp: mode_tokens_def list_all_iff split: if_splits)

lemma mode_pair_state:
  "lang = tree_sitter_rk iswspace uninit \<Longrightarrow>
     mode_pair p = (lex_state (state_mode lang p), external_lex_state (state_mode lang p))"
  by (simp add: mode_pair_def state_mode_def)

lemma sign_token_symbol:
  "y \<in> set sign_tokens \<longleftrightarrow> y = token_symbol MINUS_BEFORE_BASE \<or> y = token_symbol PLUS_BEFORE_BASE"
  by (auto simp: sign_tokens_def)

lemma external_symbol_read:
  assumes "lang = tree_sitter_rk iswspace uninit" and "wspace_class iswspace" and "length uninit = 16"
    and "state_valid_symbols lang p token"
  shows "\<exists>xs e. token_read lang p (token_symbol token) xs e"
proof -
  obtain xs e where scan: "scanned id
      (tree_sitter_rk_external_scanner_scan iswspace uninit buffer_lexer (state_valid_symbols lang p)
        (open_buffer xs)) (TokenType_value token) xs e"
    using external_token_read[OF assms(2,3), where valid = "state_valid_symbols lang p" and token = token]
      assms(4) by blast
  have "token_symbol token = external_scanner_symbol_map lang ! TokenType_value token"
    using external_symbols_agree by (simp add: assms(1))
  moreover have "external_scanner_scan lang = tree_sitter_rk_external_scanner_scan iswspace uninit"
    by (simp add: assms(1))
  ultimately have "token_read lang p (token_symbol token) xs e"
    unfolding token_read_def Let_def using scan by (intro disjI2 exI[of _ token]) simp
  then show ?thesis
    by blast
qed

lemma readable_read:
  assumes "lang = tree_sitter_rk iswspace uninit" and "wspace_class iswspace" and "length uninit = 16"
    and "p < 1348" and "readable (mode_pair p) y"
  shows "\<exists>xs e. token_read lang p y xs e"
proof -
  let ?q = "lex_state (state_mode lang p)"
  have pair: "mode_pair p = (?q, external_lex_state (state_mode lang p))"
    by (rule mode_pair_state[OF assms(1)])
  have lex: "lex_fn lang = ts_lex" "keyword_lex_fn lang = ts_lex_keywords"
      "keyword_capture_token lang = sym_identifier"
    by (simp_all add: assms(1))
  have valid: "state_valid_symbols lang p token"
    if "token \<in> {C_STYLE_COMMENT, PASCAL_STYLE_COMMENT, PRAGMA} \<or> external_lex_state (state_mode lang p) = 1"
    for token
    using that assms(4) by (simp add: state_valid[OF _ assms(1)])
  from assms(5) consider "sampled ?q y" | "y \<in> keyword_tokens" "?q \<in> set word_states"
    | token where "y = token_symbol token" "state_valid_symbols lang p token"
    | "y = ts_builtin_sym_end" "?q = 0 \<or> ?q = 63"
    using assms(5)[unfolded readable_def pair fst_conv snd_conv sign_token_symbol] valid by blast
  then show ?thesis
  proof cases
    case 1
    from sampled_read[OF this] show ?thesis
      unfolding token_read_def lex by (auto simp: Let_def)
  next
    case 2
    from keyword_token_read[OF this] show ?thesis
      unfolding token_read_def lex by (auto simp: Let_def)
  next
    case 3
    with external_symbol_read[OF assms(1-3)] show ?thesis
      by blast
  next
    case 4
    from end_token_read[OF 4(2)] 4(1) show ?thesis
      unfolding token_read_def lex by (auto simp: Let_def)
  qed
qed

section \<open>The properties\<close>

text \<open>
  C14. A cell of a token names actions only when the token can come: whenever a state of the first 1348
  has actions for a token, there is an input from which the lexers or the scanner, called with the mode
  of this state, read the token from the first character on.
\<close>

theorem token_actions_readable:
  fixes lang :: "lexer_view TSLanguage"
  assumes "lang = tree_sitter_rk iswspace uninit" and "wspace_class iswspace" and "length uninit = 16"
    and "p < length ts_parse_table_rows" and "y < TOKEN_COUNT" and "ts_parse_table_rows ! p ! y \<noteq> 0"
  shows "\<exists>xs e. token_read lang p y xs e"
proof -
  have "p < 1348" "y < SYMBOL_COUNT"
    using assms(4,5) by (simp_all add: parse_table_length TOKEN_COUNT_def SYMBOL_COUNT_def)
  from table_cell_ok[OF this] assms(5,6) have "y \<in> set (mode_tokens (mode_pair p))"
    by (simp add: cell_ok_def)
  from readable_read[OF assms(1-3) \<open>p < 1348\<close> mode_tokens_readable[OF this]] show ?thesis .
qed

lemma row_2_identifier: "ts_parse_table_rows ! 2 ! sym_identifier \<noteq> 0"
proof -
  have row: "ts_parse_rows ! 2 = ts_parse_row_2"
    by (simp add: ts_parse_rows_def parse_rows_1_def)
  have "list_all (\<lambda>(y, v). v \<noteq> 0) ts_parse_row_2"
    unfolding ts_parse_row_2_def by (simp cong: list_all_weak)
  moreover have "sym_identifier \<in> fst ` set ts_parse_row_2"
    by (simp add: ts_parse_row_2_def)
  moreover have "sym_identifier < SYMBOL_COUNT"
    by (simp add: token_numbers SYMBOL_COUNT_def)
  ultimately show ?thesis
    using table_cell[of 2 sym_identifier] by (auto simp: row list_all_iff)
qed

theorem token_actions_readable_witness:
  "\<exists>xs e. token_read (tree_sitter_rk c_iswspace (replicate 16 0)) 2 sym_identifier xs e"
proof -
  have "sym_identifier < TOKEN_COUNT"
    by (simp add: token_numbers TOKEN_COUNT_def)
  from token_actions_readable[OF refl c_space.wspace_class_axioms length_replicate _ this row_2_identifier]
  show ?thesis
    by (simp add: parse_table_length)
qed

text \<open>
  C15. The scanner is asked for exactly the tokens the parser can use: in each of the first 1348 states
  the table of valid symbols allows an external token exactly when the state has actions for it.
\<close>

theorem external_tokens_have_actions:
  fixes lang :: "'s TSLanguage"
  assumes "lang = tree_sitter_rk iswspace uninit" and "p < length ts_parse_table_rows"
  shows "state_valid_symbols lang p token \<longleftrightarrow> ts_parse_table_rows ! p ! token_symbol token \<noteq> 0"
proof -
  have p: "p < 1348" "p < 10545"
    using assms(2) by (simp_all add: parse_table_length)
  have ext: "snd (mode_pair p) = external_lex_state (state_mode lang p)"
    by (simp add: mode_pair_state[OF assms(1)])
  have extra: "token_symbol token \<in> set extra_tokens \<or> token_symbol token \<in> set sign_tokens"
      "token_symbol token \<in> set extra_tokens \<longleftrightarrow> token \<in> {C_STYLE_COMMENT, PASCAL_STYLE_COMMENT, PRAGMA}"
    by (cases token; simp add: extra_tokens_def sign_tokens_def token_numbers)+
  then show ?thesis
    using extra_cell[OF p(1), of "token_symbol token"] sign_cell[OF p(1), of "token_symbol token"]
    by (auto simp: state_valid[OF p(2) assms(1)] ext)
qed

theorem external_tokens_have_actions_witness:
  "state_valid_symbols (tree_sitter_rk c_iswspace [] :: lexer_view TSLanguage) 1347 MINUS_BEFORE_BASE \<longleftrightarrow>
     ts_parse_table_rows ! 1347 ! sym__minus_before_base \<noteq> 0"
  using external_tokens_have_actions[of "tree_sitter_rk c_iswspace []" c_iswspace "[]" 1347 MINUS_BEFORE_BASE]
  by (simp add: parse_table_length)

text \<open>
  C19. After a rule is reduced the parser goes on in a state of the table: a cell of a non-terminal in
  the first 1348 rows is less than the number of states, and each row has a cell for every symbol.
\<close>

theorem gotos_are_states:
  fixes lang :: "'s TSLanguage"
  assumes "lang = tree_sitter_rk iswspace uninit" and "p < length ts_parse_table_rows"
    and "token_count lang \<le> y" and "y < symbol_count lang"
  shows "y < length (ts_parse_table_rows ! p) \<and> ts_parse_table_rows ! p ! y < state_count lang"
proof -
  have y: "p < 1348" "y < SYMBOL_COUNT" "\<not> y < TOKEN_COUNT"
    using assms by (simp_all add: parse_table_length TOKEN_COUNT_def tree_sitter_rk_def)
  have "length (ts_parse_table_rows ! p) = SYMBOL_COUNT"
    using y(1) by (simp add: ts_parse_table_rows_def length_rows)
  moreover have "ts_parse_table_rows ! p ! y < 10545"
    using table_cell_ok[OF y(1,2)] y(3) by (auto simp: cell_ok_def goto_ok_def)
  ultimately show ?thesis
    using y(2) by (simp add: assms(1))
qed

theorem gotos_are_states_witness:
  "sym_source_file < length (ts_parse_table_rows ! 1) \<and> ts_parse_table_rows ! 1 ! sym_source_file < 10545"
proof -
  let ?lang = "tree_sitter_rk c_iswspace [] :: lexer_view TSLanguage"
  have "token_count ?lang \<le> sym_source_file" "sym_source_file < symbol_count ?lang"
    by (simp_all add: grammar_symbol_numbers tree_sitter_rk_def TOKEN_COUNT_def SYMBOL_COUNT_def)
  from gotos_are_states[OF refl _ this, of 1] show ?thesis
    by (simp add: parse_table_length)
qed

end
