(* ===== verification/Production_Fields.thy ===== *)
theory Production_Fields
  imports Field_Map Symbol_Properties
begin

text \<open>
  The properties of the fields of productions: every slice of the field map lies in the table, and its
  entries are in the order in which a reader that looks for one field relies on; the names of fields
  are in the order of \<open>strcmp\<close>; every alias is the name of a node.
\<close>

section \<open>The entries of one slice\<close>

definition entry_before :: "TSFieldMapEntry \<Rightarrow> TSFieldMapEntry \<Rightarrow> bool" where
  "entry_before e f \<longleftrightarrow>
     (if field_id e = field_id f then child_index e < child_index f else field_id e < field_id f)"

definition entry_ok :: "TSFieldMapEntry \<Rightarrow> bool" where
  "entry_ok e \<longleftrightarrow>
     0 < field_id e \<and> field_id e \<le> FIELD_COUNT \<and> child_index e < MAX_ALIAS_SEQUENCE_LENGTH"

definition entries_ok :: "TSFieldMapEntry list \<Rightarrow> bool" where
  "entries_ok es \<longleftrightarrow> successively entry_before es \<and> list_all entry_ok es"

lemma entry_simps_evaluated:
  "entry_before (Field x c h) (Field y d i) \<longleftrightarrow> (if x = y then c < d else x < y)"
  "entry_ok (Field x c h) \<longleftrightarrow> 0 < x \<and> x \<le> 109 \<and> c < 17"
  by (simp_all add: entry_before_def entry_ok_def FIELD_COUNT_def MAX_ALIAS_SEQUENCE_LENGTH_def)

lemma entries_sorted:
  assumes "entries_ok es"
  shows "sorted_wrt entry_before es"
proof -
  have "transp entry_before"
    by (rule transpI) (auto simp: entry_before_def split: if_splits)
  then show ?thesis
    using assms successively_conv_sorted_wrt by (auto simp: entries_ok_def)
qed

text \<open>The children that a reader finds for a field come in order, and each once.\<close>

definition children_of_field :: "TSFieldId \<Rightarrow> TSFieldMapEntry list \<Rightarrow> nat list" where
  "children_of_field x es = map child_index (filter (\<lambda>e. field_id e = x) es)"

lemma children_in_order: "sorted_wrt entry_before es \<Longrightarrow> sorted_wrt (<) (children_of_field x es)"
  by (induction es) (auto simp: children_of_field_def entry_before_def split: if_splits)

text \<open>The entries of a field are next to each other.\<close>

definition field_range :: "TSFieldId \<Rightarrow> TSFieldMapEntry list \<Rightarrow> TSFieldMapEntry list" where
  "field_range x es =
     takeWhile (\<lambda>e. field_id e = x) (dropWhile (\<lambda>e. field_id e < x) es)"

lemma sorted_fields: "sorted_wrt entry_before es \<Longrightarrow> sorted (map field_id es)"
  by (induction es) (auto simp: entry_before_def split: if_splits)

lemma field_range_filter:
  assumes "sorted (map field_id es)"
  shows "field_range x es = filter (\<lambda>e. field_id e = x) es"
  using assms
proof (induction es)
  case (Cons e es)
  show ?case
  proof (cases "field_id e < x")
    case True
    then show ?thesis
      using Cons by (simp add: field_range_def)
  next
    case False
    then have "takeWhile (\<lambda>e. field_id e = x) es = filter (\<lambda>e. field_id e = x) es"
      if "field_id e = x"
      using that Cons.prems
      by (induction es) (force simp: empty_filter_conv)+
    moreover have "filter (\<lambda>e. field_id e = x) es = []" if "field_id e \<noteq> x"
      using that False Cons.prems by (auto simp: filter_empty_conv)
    ultimately show ?thesis
      using False by (simp add: field_range_def)
  qed
qed (simp add: field_range_def)

section \<open>The slices of the table\<close>

lemma field_map_1: "tiled_from 0 ts_field_map_entries_1 \<and> after_runs 0 ts_field_map_entries_1 = 95"
  unfolding ts_field_map_entries_1_def by (simp cong: runs_weak)

lemma field_map_2: "tiled_from 95 ts_field_map_entries_2 \<and> after_runs 95 ts_field_map_entries_2 = 204"
  unfolding ts_field_map_entries_2_def by (simp cong: runs_weak)

lemma field_map_3: "tiled_from 204 ts_field_map_entries_3 \<and> after_runs 204 ts_field_map_entries_3 = 306"
  unfolding ts_field_map_entries_3_def by (simp cong: runs_weak)

lemma field_map_4: "tiled_from 306 ts_field_map_entries_4 \<and> after_runs 306 ts_field_map_entries_4 = 417"
  unfolding ts_field_map_entries_4_def by (simp cong: runs_weak)

lemma field_map_5: "tiled_from 417 ts_field_map_entries_5 \<and> after_runs 417 ts_field_map_entries_5 = 530"
  unfolding ts_field_map_entries_5_def by (simp cong: runs_weak)

lemma field_map_6: "tiled_from 530 ts_field_map_entries_6 \<and> after_runs 530 ts_field_map_entries_6 = 637"
  unfolding ts_field_map_entries_6_def by (simp cong: runs_weak)

lemma field_map_7: "tiled_from 637 ts_field_map_entries_7 \<and> after_runs 637 ts_field_map_entries_7 = 755"
  unfolding ts_field_map_entries_7_def by (simp cong: runs_weak)

lemma field_map_8: "tiled_from 755 ts_field_map_entries_8 \<and> after_runs 755 ts_field_map_entries_8 = 871"
  unfolding ts_field_map_entries_8_def by (simp cong: runs_weak)

lemma field_map_9: "tiled_from 871 ts_field_map_entries_9 \<and> after_runs 871 ts_field_map_entries_9 = 987"
  unfolding ts_field_map_entries_9_def by (simp cong: runs_weak)

lemma field_map_10: "tiled_from 987 ts_field_map_entries_10 \<and> after_runs 987 ts_field_map_entries_10 = 1102"
  unfolding ts_field_map_entries_10_def by (simp cong: runs_weak)

lemma field_map_11: "tiled_from 1102 ts_field_map_entries_11 \<and> after_runs 1102 ts_field_map_entries_11 = 1219"
  unfolding ts_field_map_entries_11_def by (simp cong: runs_weak)

lemma field_map_12: "tiled_from 1219 ts_field_map_entries_12 \<and> after_runs 1219 ts_field_map_entries_12 = 1331"
  unfolding ts_field_map_entries_12_def by (simp cong: runs_weak)

lemma field_map_13: "tiled_from 1331 ts_field_map_entries_13 \<and> after_runs 1331 ts_field_map_entries_13 = 1449"
  unfolding ts_field_map_entries_13_def by (simp cong: runs_weak)

lemma field_map_14: "tiled_from 1449 ts_field_map_entries_14 \<and> after_runs 1449 ts_field_map_entries_14 = 1570"
  unfolding ts_field_map_entries_14_def by (simp cong: runs_weak)

lemma field_map_15: "tiled_from 1570 ts_field_map_entries_15 \<and> after_runs 1570 ts_field_map_entries_15 = 1689"
  unfolding ts_field_map_entries_15_def by (simp cong: runs_weak)

lemma field_map_16: "tiled_from 1689 ts_field_map_entries_16 \<and> after_runs 1689 ts_field_map_entries_16 = 1806"
  unfolding ts_field_map_entries_16_def by (simp cong: runs_weak)

lemma field_map_17: "tiled_from 1806 ts_field_map_entries_17 \<and> after_runs 1806 ts_field_map_entries_17 = 1923"
  unfolding ts_field_map_entries_17_def by (simp cong: runs_weak)

lemma field_map_18: "tiled_from 1923 ts_field_map_entries_18 \<and> after_runs 1923 ts_field_map_entries_18 = 2041"
  unfolding ts_field_map_entries_18_def by (simp cong: runs_weak)

lemma field_map_19: "tiled_from 2041 ts_field_map_entries_19 \<and> after_runs 2041 ts_field_map_entries_19 = 2158"
  unfolding ts_field_map_entries_19_def by (simp cong: runs_weak)

lemma field_map_20: "tiled_from 2158 ts_field_map_entries_20 \<and> after_runs 2158 ts_field_map_entries_20 = 2280"
  unfolding ts_field_map_entries_20_def by (simp cong: runs_weak)

lemma field_map_21: "tiled_from 2280 ts_field_map_entries_21 \<and> after_runs 2280 ts_field_map_entries_21 = 2401"
  unfolding ts_field_map_entries_21_def by (simp cong: runs_weak)

lemma field_map_22: "tiled_from 2401 ts_field_map_entries_22 \<and> after_runs 2401 ts_field_map_entries_22 = 2519"
  unfolding ts_field_map_entries_22_def by (simp cong: runs_weak)

lemma field_map_23: "tiled_from 2519 ts_field_map_entries_23 \<and> after_runs 2519 ts_field_map_entries_23 = 2634"
  unfolding ts_field_map_entries_23_def by (simp cong: runs_weak)

lemma field_map_24: "tiled_from 2634 ts_field_map_entries_24 \<and> after_runs 2634 ts_field_map_entries_24 = 2756"
  unfolding ts_field_map_entries_24_def by (simp cong: runs_weak)

lemma field_map_25: "tiled_from 2756 ts_field_map_entries_25 \<and> after_runs 2756 ts_field_map_entries_25 = 2879"
  unfolding ts_field_map_entries_25_def by (simp cong: runs_weak)

lemma field_map_26: "tiled_from 2879 ts_field_map_entries_26 \<and> after_runs 2879 ts_field_map_entries_26 = 2999"
  unfolding ts_field_map_entries_26_def by (simp cong: runs_weak)

lemma field_map_27: "tiled_from 2999 ts_field_map_entries_27 \<and> after_runs 2999 ts_field_map_entries_27 = 3121"
  unfolding ts_field_map_entries_27_def by (simp cong: runs_weak)

lemma field_map_28: "tiled_from 3121 ts_field_map_entries_28 \<and> after_runs 3121 ts_field_map_entries_28 = 3243"
  unfolding ts_field_map_entries_28_def by (simp cong: runs_weak)

lemma field_map_29: "tiled_from 3243 ts_field_map_entries_29 \<and> after_runs 3243 ts_field_map_entries_29 = 3359"
  unfolding ts_field_map_entries_29_def by (simp cong: runs_weak)

lemma field_map_30: "tiled_from 3359 ts_field_map_entries_30 \<and> after_runs 3359 ts_field_map_entries_30 = 3477"
  unfolding ts_field_map_entries_30_def by (simp cong: runs_weak)

lemma field_map_31: "tiled_from 3477 ts_field_map_entries_31 \<and> after_runs 3477 ts_field_map_entries_31 = 3596"
  unfolding ts_field_map_entries_31_def by (simp cong: runs_weak)

lemma field_map_32: "tiled_from 3596 ts_field_map_entries_32 \<and> after_runs 3596 ts_field_map_entries_32 = 3714"
  unfolding ts_field_map_entries_32_def by (simp cong: runs_weak)

lemma field_map_33: "tiled_from 3714 ts_field_map_entries_33 \<and> after_runs 3714 ts_field_map_entries_33 = 3833"
  unfolding ts_field_map_entries_33_def by (simp cong: runs_weak)

lemma field_map_34: "tiled_from 3833 ts_field_map_entries_34 \<and> after_runs 3833 ts_field_map_entries_34 = 3956"
  unfolding ts_field_map_entries_34_def by (simp cong: runs_weak)

lemma field_map_35: "tiled_from 3956 ts_field_map_entries_35 \<and> after_runs 3956 ts_field_map_entries_35 = 4080"
  unfolding ts_field_map_entries_35_def by (simp cong: runs_weak)

lemma field_map_36: "tiled_from 4080 ts_field_map_entries_36 \<and> after_runs 4080 ts_field_map_entries_36 = 4206"
  unfolding ts_field_map_entries_36_def by (simp cong: runs_weak)

lemma field_map_37: "tiled_from 4206 ts_field_map_entries_37 \<and> after_runs 4206 ts_field_map_entries_37 = 4326"
  unfolding ts_field_map_entries_37_def by (simp cong: runs_weak)

lemma field_map_38: "tiled_from 4326 ts_field_map_entries_38 \<and> after_runs 4326 ts_field_map_entries_38 = 4445"
  unfolding ts_field_map_entries_38_def by (simp cong: runs_weak)

lemma field_map_39: "tiled_from 4445 ts_field_map_entries_39 \<and> after_runs 4445 ts_field_map_entries_39 = 4568"
  unfolding ts_field_map_entries_39_def by (simp cong: runs_weak)

lemma field_map_40: "tiled_from 4568 ts_field_map_entries_40 \<and> after_runs 4568 ts_field_map_entries_40 = 4693"
  unfolding ts_field_map_entries_40_def by (simp cong: runs_weak)

lemma field_map_41: "tiled_from 4693 ts_field_map_entries_41 \<and> after_runs 4693 ts_field_map_entries_41 = 4819"
  unfolding ts_field_map_entries_41_def by (simp cong: runs_weak)

lemma field_map_42: "tiled_from 4819 ts_field_map_entries_42 \<and> after_runs 4819 ts_field_map_entries_42 = 4942"
  unfolding ts_field_map_entries_42_def by (simp cong: runs_weak)

lemma field_map_43: "tiled_from 4942 ts_field_map_entries_43 \<and> after_runs 4942 ts_field_map_entries_43 = 5065"
  unfolding ts_field_map_entries_43_def by (simp cong: runs_weak)

lemma field_map_44: "tiled_from 5065 ts_field_map_entries_44 \<and> after_runs 5065 ts_field_map_entries_44 = 5186"
  unfolding ts_field_map_entries_44_def by (simp cong: runs_weak)

lemma field_map_45: "tiled_from 5186 ts_field_map_entries_45 \<and> after_runs 5186 ts_field_map_entries_45 = 5308"
  unfolding ts_field_map_entries_45_def by (simp cong: runs_weak)

lemma field_map_46: "tiled_from 5308 ts_field_map_entries_46 \<and> after_runs 5308 ts_field_map_entries_46 = 5430"
  unfolding ts_field_map_entries_46_def by (simp cong: runs_weak)

lemma field_map_47: "tiled_from 5430 ts_field_map_entries_47 \<and> after_runs 5430 ts_field_map_entries_47 = 5548"
  unfolding ts_field_map_entries_47_def by (simp cong: runs_weak)

lemma field_map_48: "tiled_from 5548 ts_field_map_entries_48 \<and> after_runs 5548 ts_field_map_entries_48 = 5671"
  unfolding ts_field_map_entries_48_def by (simp cong: runs_weak)

lemma field_map_49: "tiled_from 5671 ts_field_map_entries_49 \<and> after_runs 5671 ts_field_map_entries_49 = 5793"
  unfolding ts_field_map_entries_49_def by (simp cong: runs_weak)

lemma field_map_50: "tiled_from 5793 ts_field_map_entries_50 \<and> after_runs 5793 ts_field_map_entries_50 = 5914"
  unfolding ts_field_map_entries_50_def by (simp cong: runs_weak)

lemma field_map_51: "tiled_from 5914 ts_field_map_entries_51 \<and> after_runs 5914 ts_field_map_entries_51 = 6038"
  unfolding ts_field_map_entries_51_def by (simp cong: runs_weak)

lemma field_map_52: "tiled_from 6038 ts_field_map_entries_52 \<and> after_runs 6038 ts_field_map_entries_52 = 6166"
  unfolding ts_field_map_entries_52_def by (simp cong: runs_weak)

lemma field_map_53: "tiled_from 6166 ts_field_map_entries_53 \<and> after_runs 6166 ts_field_map_entries_53 = 6293"
  unfolding ts_field_map_entries_53_def by (simp cong: runs_weak)

lemma field_map_54: "tiled_from 6293 ts_field_map_entries_54 \<and> after_runs 6293 ts_field_map_entries_54 = 6415"
  unfolding ts_field_map_entries_54_def by (simp cong: runs_weak)

lemma field_map_55: "tiled_from 6415 ts_field_map_entries_55 \<and> after_runs 6415 ts_field_map_entries_55 = 6538"
  unfolding ts_field_map_entries_55_def by (simp cong: runs_weak)

lemma field_map_56: "tiled_from 6538 ts_field_map_entries_56 \<and> after_runs 6538 ts_field_map_entries_56 = 6664"
  unfolding ts_field_map_entries_56_def by (simp cong: runs_weak)

lemma field_map_57: "tiled_from 6664 ts_field_map_entries_57 \<and> after_runs 6664 ts_field_map_entries_57 = 6788"
  unfolding ts_field_map_entries_57_def by (simp cong: runs_weak)

lemma field_map_58: "tiled_from 6788 ts_field_map_entries_58 \<and> after_runs 6788 ts_field_map_entries_58 = 6909"
  unfolding ts_field_map_entries_58_def by (simp cong: runs_weak)

lemma field_map_59: "tiled_from 6909 ts_field_map_entries_59 \<and> after_runs 6909 ts_field_map_entries_59 = 7036"
  unfolding ts_field_map_entries_59_def by (simp cong: runs_weak)

lemma field_map_60: "tiled_from 7036 ts_field_map_entries_60 \<and> after_runs 7036 ts_field_map_entries_60 = 7164"
  unfolding ts_field_map_entries_60_def by (simp cong: runs_weak)

lemma field_map_61: "tiled_from 7164 ts_field_map_entries_61 \<and> after_runs 7164 ts_field_map_entries_61 = 7291"
  unfolding ts_field_map_entries_61_def by (simp cong: runs_weak)

lemma field_map_62: "tiled_from 7291 ts_field_map_entries_62 \<and> after_runs 7291 ts_field_map_entries_62 = 7414"
  unfolding ts_field_map_entries_62_def by (simp cong: runs_weak)

lemma field_map_63: "tiled_from 7414 ts_field_map_entries_63 \<and> after_runs 7414 ts_field_map_entries_63 = 7540"
  unfolding ts_field_map_entries_63_def by (simp cong: runs_weak)

lemma field_map_64: "tiled_from 7540 ts_field_map_entries_64 \<and> after_runs 7540 ts_field_map_entries_64 = 7663"
  unfolding ts_field_map_entries_64_def by (simp cong: runs_weak)

lemma field_map_65: "tiled_from 7663 ts_field_map_entries_65 \<and> after_runs 7663 ts_field_map_entries_65 = 7784"
  unfolding ts_field_map_entries_65_def by (simp cong: runs_weak)

lemma field_map_66: "tiled_from 7784 ts_field_map_entries_66 \<and> after_runs 7784 ts_field_map_entries_66 = 7909"
  unfolding ts_field_map_entries_66_def by (simp cong: runs_weak)

lemma field_map_67: "tiled_from 7909 ts_field_map_entries_67 \<and> after_runs 7909 ts_field_map_entries_67 = 8032"
  unfolding ts_field_map_entries_67_def by (simp cong: runs_weak)

lemma field_map_68: "tiled_from 8032 ts_field_map_entries_68 \<and> after_runs 8032 ts_field_map_entries_68 = 8155"
  unfolding ts_field_map_entries_68_def by (simp cong: runs_weak)

lemma field_map_69: "tiled_from 8155 ts_field_map_entries_69 \<and> after_runs 8155 ts_field_map_entries_69 = 8277"
  unfolding ts_field_map_entries_69_def by (simp cong: runs_weak)

lemma field_map_70: "tiled_from 8277 ts_field_map_entries_70 \<and> after_runs 8277 ts_field_map_entries_70 = 8405"
  unfolding ts_field_map_entries_70_def by (simp cong: runs_weak)

lemma field_map_71: "tiled_from 8405 ts_field_map_entries_71 \<and> after_runs 8405 ts_field_map_entries_71 = 8529"
  unfolding ts_field_map_entries_71_def by (simp cong: runs_weak)

lemma field_map_72: "tiled_from 8529 ts_field_map_entries_72 \<and> after_runs 8529 ts_field_map_entries_72 = 8653"
  unfolding ts_field_map_entries_72_def by (simp cong: runs_weak)

lemma field_map_73: "tiled_from 8653 ts_field_map_entries_73 \<and> after_runs 8653 ts_field_map_entries_73 = 8777"
  unfolding ts_field_map_entries_73_def by (simp cong: runs_weak)

lemma field_map_74: "tiled_from 8777 ts_field_map_entries_74 \<and> after_runs 8777 ts_field_map_entries_74 = 8900"
  unfolding ts_field_map_entries_74_def by (simp cong: runs_weak)

lemma field_map_75: "tiled_from 8900 ts_field_map_entries_75 \<and> after_runs 8900 ts_field_map_entries_75 = 9029"
  unfolding ts_field_map_entries_75_def by (simp cong: runs_weak)

lemma field_map_76: "tiled_from 9029 ts_field_map_entries_76 \<and> after_runs 9029 ts_field_map_entries_76 = 9155"
  unfolding ts_field_map_entries_76_def by (simp cong: runs_weak)

lemma field_map_77: "tiled_from 9155 ts_field_map_entries_77 \<and> after_runs 9155 ts_field_map_entries_77 = 9279"
  unfolding ts_field_map_entries_77_def by (simp cong: runs_weak)

lemma field_map_78: "tiled_from 9279 ts_field_map_entries_78 \<and> after_runs 9279 ts_field_map_entries_78 = 9405"
  unfolding ts_field_map_entries_78_def by (simp cong: runs_weak)

lemma field_map_79: "tiled_from 9405 ts_field_map_entries_79 \<and> after_runs 9405 ts_field_map_entries_79 = 9533"
  unfolding ts_field_map_entries_79_def by (simp cong: runs_weak)

lemma field_map_80: "tiled_from 9533 ts_field_map_entries_80 \<and> after_runs 9533 ts_field_map_entries_80 = 9660"
  unfolding ts_field_map_entries_80_def by (simp cong: runs_weak)

lemma field_map_81: "tiled_from 9660 ts_field_map_entries_81 \<and> after_runs 9660 ts_field_map_entries_81 = 9787"
  unfolding ts_field_map_entries_81_def by (simp cong: runs_weak)

lemma field_map_82: "tiled_from 9787 ts_field_map_entries_82 \<and> after_runs 9787 ts_field_map_entries_82 = 9910"
  unfolding ts_field_map_entries_82_def by (simp cong: runs_weak)

lemma field_map_83: "tiled_from 9910 ts_field_map_entries_83 \<and> after_runs 9910 ts_field_map_entries_83 = 10033"
  unfolding ts_field_map_entries_83_def by (simp cong: runs_weak)

lemma field_map_84: "tiled_from 10033 ts_field_map_entries_84 \<and> after_runs 10033 ts_field_map_entries_84 = 10158"
  unfolding ts_field_map_entries_84_def by (simp cong: runs_weak)

lemma field_map_85: "tiled_from 10158 ts_field_map_entries_85 \<and> after_runs 10158 ts_field_map_entries_85 = 10281"
  unfolding ts_field_map_entries_85_def by (simp cong: runs_weak)

lemma field_map_86: "tiled_from 10281 ts_field_map_entries_86 \<and> after_runs 10281 ts_field_map_entries_86 = 10404"
  unfolding ts_field_map_entries_86_def by (simp cong: runs_weak)

lemma field_map_87: "tiled_from 10404 ts_field_map_entries_87 \<and> after_runs 10404 ts_field_map_entries_87 = 10532"
  unfolding ts_field_map_entries_87_def by (simp cong: runs_weak)

lemma field_map_88: "tiled_from 10532 ts_field_map_entries_88 \<and> after_runs 10532 ts_field_map_entries_88 = 10662"
  unfolding ts_field_map_entries_88_def by (simp cong: runs_weak)

lemma field_map_89: "tiled_from 10662 ts_field_map_entries_89 \<and> after_runs 10662 ts_field_map_entries_89 = 10792"
  unfolding ts_field_map_entries_89_def by (simp cong: runs_weak)

lemma field_map_90: "tiled_from 10792 ts_field_map_entries_90 \<and> after_runs 10792 ts_field_map_entries_90 = 10918"
  unfolding ts_field_map_entries_90_def by (simp cong: runs_weak)

lemma field_map_91: "tiled_from 10918 ts_field_map_entries_91 \<and> after_runs 10918 ts_field_map_entries_91 = 11044"
  unfolding ts_field_map_entries_91_def by (simp cong: runs_weak)

lemma field_map_92: "tiled_from 11044 ts_field_map_entries_92 \<and> after_runs 11044 ts_field_map_entries_92 = 11172"
  unfolding ts_field_map_entries_92_def by (simp cong: runs_weak)

lemma field_map_93: "tiled_from 11172 ts_field_map_entries_93 \<and> after_runs 11172 ts_field_map_entries_93 = 11299"
  unfolding ts_field_map_entries_93_def by (simp cong: runs_weak)

lemma field_map_94: "tiled_from 11299 ts_field_map_entries_94 \<and> after_runs 11299 ts_field_map_entries_94 = 11426"
  unfolding ts_field_map_entries_94_def by (simp cong: runs_weak)

lemma field_map_95: "tiled_from 11426 ts_field_map_entries_95 \<and> after_runs 11426 ts_field_map_entries_95 = 11554"
  unfolding ts_field_map_entries_95_def by (simp cong: runs_weak)

lemma field_map_96: "tiled_from 11554 ts_field_map_entries_96 \<and> after_runs 11554 ts_field_map_entries_96 = 11677"
  unfolding ts_field_map_entries_96_def by (simp cong: runs_weak)

lemma field_map_97: "tiled_from 11677 ts_field_map_entries_97 \<and> after_runs 11677 ts_field_map_entries_97 = 11803"
  unfolding ts_field_map_entries_97_def by (simp cong: runs_weak)

lemma field_map_98: "tiled_from 11803 ts_field_map_entries_98 \<and> after_runs 11803 ts_field_map_entries_98 = 11931"
  unfolding ts_field_map_entries_98_def by (simp cong: runs_weak)

lemma field_map_99: "tiled_from 11931 ts_field_map_entries_99 \<and> after_runs 11931 ts_field_map_entries_99 = 12059"
  unfolding ts_field_map_entries_99_def by (simp cong: runs_weak)

lemma field_map_100: "tiled_from 12059 ts_field_map_entries_100 \<and> after_runs 12059 ts_field_map_entries_100 = 12187"
  unfolding ts_field_map_entries_100_def by (simp cong: runs_weak)

lemma field_map_101: "tiled_from 12187 ts_field_map_entries_101 \<and> after_runs 12187 ts_field_map_entries_101 = 12314"
  unfolding ts_field_map_entries_101_def by (simp cong: runs_weak)

lemma field_map_102: "tiled_from 12314 ts_field_map_entries_102 \<and> after_runs 12314 ts_field_map_entries_102 = 12445"
  unfolding ts_field_map_entries_102_def by (simp cong: runs_weak)

lemma field_map_103: "tiled_from 12445 ts_field_map_entries_103 \<and> after_runs 12445 ts_field_map_entries_103 = 12575"
  unfolding ts_field_map_entries_103_def by (simp cong: runs_weak)

lemma field_map_104: "tiled_from 12575 ts_field_map_entries_104 \<and> after_runs 12575 ts_field_map_entries_104 = 12704"
  unfolding ts_field_map_entries_104_def by (simp cong: runs_weak)

lemma field_map_105: "tiled_from 12704 ts_field_map_entries_105 \<and> after_runs 12704 ts_field_map_entries_105 = 12828"
  unfolding ts_field_map_entries_105_def by (simp cong: runs_weak)

lemma field_map_106: "tiled_from 12828 ts_field_map_entries_106 \<and> after_runs 12828 ts_field_map_entries_106 = 12954"
  unfolding ts_field_map_entries_106_def by (simp cong: runs_weak)

lemma field_map_107: "tiled_from 12954 ts_field_map_entries_107 \<and> after_runs 12954 ts_field_map_entries_107 = 13082"
  unfolding ts_field_map_entries_107_def by (simp cong: runs_weak)

lemma field_map_108: "tiled_from 13082 ts_field_map_entries_108 \<and> after_runs 13082 ts_field_map_entries_108 = 13211"
  unfolding ts_field_map_entries_108_def by (simp cong: runs_weak)

lemma field_map_109: "tiled_from 13211 ts_field_map_entries_109 \<and> after_runs 13211 ts_field_map_entries_109 = 13336"
  unfolding ts_field_map_entries_109_def by (simp cong: runs_weak)

lemma field_map_110: "tiled_from 13336 ts_field_map_entries_110 \<and> after_runs 13336 ts_field_map_entries_110 = 13466"
  unfolding ts_field_map_entries_110_def by (simp cong: runs_weak)

lemma field_map_111: "tiled_from 13466 ts_field_map_entries_111 \<and> after_runs 13466 ts_field_map_entries_111 = 13599"
  unfolding ts_field_map_entries_111_def by (simp cong: runs_weak)

lemma field_map_112: "tiled_from 13599 ts_field_map_entries_112 \<and> after_runs 13599 ts_field_map_entries_112 = 13730"
  unfolding ts_field_map_entries_112_def by (simp cong: runs_weak)

lemma field_map_113: "tiled_from 13730 ts_field_map_entries_113 \<and> after_runs 13730 ts_field_map_entries_113 = 13856"
  unfolding ts_field_map_entries_113_def by (simp cong: runs_weak)

lemma field_map_114: "tiled_from 13856 ts_field_map_entries_114 \<and> after_runs 13856 ts_field_map_entries_114 = 13984"
  unfolding ts_field_map_entries_114_def by (simp cong: runs_weak)

lemma field_map_115: "tiled_from 13984 ts_field_map_entries_115 \<and> after_runs 13984 ts_field_map_entries_115 = 14113"
  unfolding ts_field_map_entries_115_def by (simp cong: runs_weak)

lemma field_map_116: "tiled_from 14113 ts_field_map_entries_116 \<and> after_runs 14113 ts_field_map_entries_116 = 14246"
  unfolding ts_field_map_entries_116_def by (simp cong: runs_weak)

lemma field_map_117: "tiled_from 14246 ts_field_map_entries_117 \<and> after_runs 14246 ts_field_map_entries_117 = 14359"
  unfolding ts_field_map_entries_117_def by (simp cong: runs_weak)

lemma field_map_tiled: "tiled_from 0 field_map_runs" "after_runs 0 field_map_runs = 14359"
  by (simp_all add: field_map_runs_def tiled_append after_runs_append
      field_map_1 field_map_2 field_map_3 field_map_4 field_map_5 field_map_6 field_map_7
      field_map_8 field_map_9 field_map_10 field_map_11 field_map_12 field_map_13 field_map_14
      field_map_15 field_map_16 field_map_17 field_map_18 field_map_19 field_map_20 field_map_21
      field_map_22 field_map_23 field_map_24 field_map_25 field_map_26 field_map_27 field_map_28
      field_map_29 field_map_30 field_map_31 field_map_32 field_map_33 field_map_34 field_map_35
      field_map_36 field_map_37 field_map_38 field_map_39 field_map_40 field_map_41 field_map_42
      field_map_43 field_map_44 field_map_45 field_map_46 field_map_47 field_map_48 field_map_49
      field_map_50 field_map_51 field_map_52 field_map_53 field_map_54 field_map_55 field_map_56
      field_map_57 field_map_58 field_map_59 field_map_60 field_map_61 field_map_62 field_map_63
      field_map_64 field_map_65 field_map_66 field_map_67 field_map_68 field_map_69 field_map_70
      field_map_71 field_map_72 field_map_73 field_map_74 field_map_75 field_map_76 field_map_77
      field_map_78 field_map_79 field_map_80 field_map_81 field_map_82 field_map_83 field_map_84
      field_map_85 field_map_86 field_map_87 field_map_88 field_map_89 field_map_90 field_map_91
      field_map_92 field_map_93 field_map_94 field_map_95 field_map_96 field_map_97 field_map_98
      field_map_99 field_map_100 field_map_101 field_map_102 field_map_103 field_map_104
      field_map_105 field_map_106 field_map_107 field_map_108 field_map_109 field_map_110
      field_map_111 field_map_112 field_map_113 field_map_114 field_map_115 field_map_116
      field_map_117)

text \<open>Every run of entries is in order.\<close>

lemma field_map_ok_1: "list_all (\<lambda>(i, vs). entries_ok vs) ts_field_map_entries_1"
  unfolding ts_field_map_entries_1_def
  by (simp add: entries_ok_def entry_simps_evaluated field_numbers cong: list_all_weak)

lemma field_map_ok_2: "list_all (\<lambda>(i, vs). entries_ok vs) ts_field_map_entries_2"
  unfolding ts_field_map_entries_2_def
  by (simp add: entries_ok_def entry_simps_evaluated field_numbers cong: list_all_weak)

lemma field_map_ok_3: "list_all (\<lambda>(i, vs). entries_ok vs) ts_field_map_entries_3"
  unfolding ts_field_map_entries_3_def
  by (simp add: entries_ok_def entry_simps_evaluated field_numbers cong: list_all_weak)

lemma field_map_ok_4: "list_all (\<lambda>(i, vs). entries_ok vs) ts_field_map_entries_4"
  unfolding ts_field_map_entries_4_def
  by (simp add: entries_ok_def entry_simps_evaluated field_numbers cong: list_all_weak)

lemma field_map_ok_5: "list_all (\<lambda>(i, vs). entries_ok vs) ts_field_map_entries_5"
  unfolding ts_field_map_entries_5_def
  by (simp add: entries_ok_def entry_simps_evaluated field_numbers cong: list_all_weak)

lemma field_map_ok_6: "list_all (\<lambda>(i, vs). entries_ok vs) ts_field_map_entries_6"
  unfolding ts_field_map_entries_6_def
  by (simp add: entries_ok_def entry_simps_evaluated field_numbers cong: list_all_weak)

lemma field_map_ok_7: "list_all (\<lambda>(i, vs). entries_ok vs) ts_field_map_entries_7"
  unfolding ts_field_map_entries_7_def
  by (simp add: entries_ok_def entry_simps_evaluated field_numbers cong: list_all_weak)

lemma field_map_ok_8: "list_all (\<lambda>(i, vs). entries_ok vs) ts_field_map_entries_8"
  unfolding ts_field_map_entries_8_def
  by (simp add: entries_ok_def entry_simps_evaluated field_numbers cong: list_all_weak)

lemma field_map_ok_9: "list_all (\<lambda>(i, vs). entries_ok vs) ts_field_map_entries_9"
  unfolding ts_field_map_entries_9_def
  by (simp add: entries_ok_def entry_simps_evaluated field_numbers cong: list_all_weak)

lemma field_map_ok_10: "list_all (\<lambda>(i, vs). entries_ok vs) ts_field_map_entries_10"
  unfolding ts_field_map_entries_10_def
  by (simp add: entries_ok_def entry_simps_evaluated field_numbers cong: list_all_weak)

lemma field_map_ok_11: "list_all (\<lambda>(i, vs). entries_ok vs) ts_field_map_entries_11"
  unfolding ts_field_map_entries_11_def
  by (simp add: entries_ok_def entry_simps_evaluated field_numbers cong: list_all_weak)

lemma field_map_ok_12: "list_all (\<lambda>(i, vs). entries_ok vs) ts_field_map_entries_12"
  unfolding ts_field_map_entries_12_def
  by (simp add: entries_ok_def entry_simps_evaluated field_numbers cong: list_all_weak)

lemma field_map_ok_13: "list_all (\<lambda>(i, vs). entries_ok vs) ts_field_map_entries_13"
  unfolding ts_field_map_entries_13_def
  by (simp add: entries_ok_def entry_simps_evaluated field_numbers cong: list_all_weak)

lemma field_map_ok_14: "list_all (\<lambda>(i, vs). entries_ok vs) ts_field_map_entries_14"
  unfolding ts_field_map_entries_14_def
  by (simp add: entries_ok_def entry_simps_evaluated field_numbers cong: list_all_weak)

lemma field_map_ok_15: "list_all (\<lambda>(i, vs). entries_ok vs) ts_field_map_entries_15"
  unfolding ts_field_map_entries_15_def
  by (simp add: entries_ok_def entry_simps_evaluated field_numbers cong: list_all_weak)

lemma field_map_ok_16: "list_all (\<lambda>(i, vs). entries_ok vs) ts_field_map_entries_16"
  unfolding ts_field_map_entries_16_def
  by (simp add: entries_ok_def entry_simps_evaluated field_numbers cong: list_all_weak)

lemma field_map_ok_17: "list_all (\<lambda>(i, vs). entries_ok vs) ts_field_map_entries_17"
  unfolding ts_field_map_entries_17_def
  by (simp add: entries_ok_def entry_simps_evaluated field_numbers cong: list_all_weak)

lemma field_map_ok_18: "list_all (\<lambda>(i, vs). entries_ok vs) ts_field_map_entries_18"
  unfolding ts_field_map_entries_18_def
  by (simp add: entries_ok_def entry_simps_evaluated field_numbers cong: list_all_weak)

lemma field_map_ok_19: "list_all (\<lambda>(i, vs). entries_ok vs) ts_field_map_entries_19"
  unfolding ts_field_map_entries_19_def
  by (simp add: entries_ok_def entry_simps_evaluated field_numbers cong: list_all_weak)

lemma field_map_ok_20: "list_all (\<lambda>(i, vs). entries_ok vs) ts_field_map_entries_20"
  unfolding ts_field_map_entries_20_def
  by (simp add: entries_ok_def entry_simps_evaluated field_numbers cong: list_all_weak)

lemma field_map_ok_21: "list_all (\<lambda>(i, vs). entries_ok vs) ts_field_map_entries_21"
  unfolding ts_field_map_entries_21_def
  by (simp add: entries_ok_def entry_simps_evaluated field_numbers cong: list_all_weak)

lemma field_map_ok_22: "list_all (\<lambda>(i, vs). entries_ok vs) ts_field_map_entries_22"
  unfolding ts_field_map_entries_22_def
  by (simp add: entries_ok_def entry_simps_evaluated field_numbers cong: list_all_weak)

lemma field_map_ok_23: "list_all (\<lambda>(i, vs). entries_ok vs) ts_field_map_entries_23"
  unfolding ts_field_map_entries_23_def
  by (simp add: entries_ok_def entry_simps_evaluated field_numbers cong: list_all_weak)

lemma field_map_ok_24: "list_all (\<lambda>(i, vs). entries_ok vs) ts_field_map_entries_24"
  unfolding ts_field_map_entries_24_def
  by (simp add: entries_ok_def entry_simps_evaluated field_numbers cong: list_all_weak)

lemma field_map_ok_25: "list_all (\<lambda>(i, vs). entries_ok vs) ts_field_map_entries_25"
  unfolding ts_field_map_entries_25_def
  by (simp add: entries_ok_def entry_simps_evaluated field_numbers cong: list_all_weak)

lemma field_map_ok_26: "list_all (\<lambda>(i, vs). entries_ok vs) ts_field_map_entries_26"
  unfolding ts_field_map_entries_26_def
  by (simp add: entries_ok_def entry_simps_evaluated field_numbers cong: list_all_weak)

lemma field_map_ok_27: "list_all (\<lambda>(i, vs). entries_ok vs) ts_field_map_entries_27"
  unfolding ts_field_map_entries_27_def
  by (simp add: entries_ok_def entry_simps_evaluated field_numbers cong: list_all_weak)

lemma field_map_ok_28: "list_all (\<lambda>(i, vs). entries_ok vs) ts_field_map_entries_28"
  unfolding ts_field_map_entries_28_def
  by (simp add: entries_ok_def entry_simps_evaluated field_numbers cong: list_all_weak)

lemma field_map_ok_29: "list_all (\<lambda>(i, vs). entries_ok vs) ts_field_map_entries_29"
  unfolding ts_field_map_entries_29_def
  by (simp add: entries_ok_def entry_simps_evaluated field_numbers cong: list_all_weak)

lemma field_map_ok_30: "list_all (\<lambda>(i, vs). entries_ok vs) ts_field_map_entries_30"
  unfolding ts_field_map_entries_30_def
  by (simp add: entries_ok_def entry_simps_evaluated field_numbers cong: list_all_weak)

lemma field_map_ok_31: "list_all (\<lambda>(i, vs). entries_ok vs) ts_field_map_entries_31"
  unfolding ts_field_map_entries_31_def
  by (simp add: entries_ok_def entry_simps_evaluated field_numbers cong: list_all_weak)

lemma field_map_ok_32: "list_all (\<lambda>(i, vs). entries_ok vs) ts_field_map_entries_32"
  unfolding ts_field_map_entries_32_def
  by (simp add: entries_ok_def entry_simps_evaluated field_numbers cong: list_all_weak)

lemma field_map_ok_33: "list_all (\<lambda>(i, vs). entries_ok vs) ts_field_map_entries_33"
  unfolding ts_field_map_entries_33_def
  by (simp add: entries_ok_def entry_simps_evaluated field_numbers cong: list_all_weak)

lemma field_map_ok_34: "list_all (\<lambda>(i, vs). entries_ok vs) ts_field_map_entries_34"
  unfolding ts_field_map_entries_34_def
  by (simp add: entries_ok_def entry_simps_evaluated field_numbers cong: list_all_weak)

lemma field_map_ok_35: "list_all (\<lambda>(i, vs). entries_ok vs) ts_field_map_entries_35"
  unfolding ts_field_map_entries_35_def
  by (simp add: entries_ok_def entry_simps_evaluated field_numbers cong: list_all_weak)

lemma field_map_ok_36: "list_all (\<lambda>(i, vs). entries_ok vs) ts_field_map_entries_36"
  unfolding ts_field_map_entries_36_def
  by (simp add: entries_ok_def entry_simps_evaluated field_numbers cong: list_all_weak)

lemma field_map_ok_37: "list_all (\<lambda>(i, vs). entries_ok vs) ts_field_map_entries_37"
  unfolding ts_field_map_entries_37_def
  by (simp add: entries_ok_def entry_simps_evaluated field_numbers cong: list_all_weak)

lemma field_map_ok_38: "list_all (\<lambda>(i, vs). entries_ok vs) ts_field_map_entries_38"
  unfolding ts_field_map_entries_38_def
  by (simp add: entries_ok_def entry_simps_evaluated field_numbers cong: list_all_weak)

lemma field_map_ok_39: "list_all (\<lambda>(i, vs). entries_ok vs) ts_field_map_entries_39"
  unfolding ts_field_map_entries_39_def
  by (simp add: entries_ok_def entry_simps_evaluated field_numbers cong: list_all_weak)

lemma field_map_ok_40: "list_all (\<lambda>(i, vs). entries_ok vs) ts_field_map_entries_40"
  unfolding ts_field_map_entries_40_def
  by (simp add: entries_ok_def entry_simps_evaluated field_numbers cong: list_all_weak)

lemma field_map_ok_41: "list_all (\<lambda>(i, vs). entries_ok vs) ts_field_map_entries_41"
  unfolding ts_field_map_entries_41_def
  by (simp add: entries_ok_def entry_simps_evaluated field_numbers cong: list_all_weak)

lemma field_map_ok_42: "list_all (\<lambda>(i, vs). entries_ok vs) ts_field_map_entries_42"
  unfolding ts_field_map_entries_42_def
  by (simp add: entries_ok_def entry_simps_evaluated field_numbers cong: list_all_weak)

lemma field_map_ok_43: "list_all (\<lambda>(i, vs). entries_ok vs) ts_field_map_entries_43"
  unfolding ts_field_map_entries_43_def
  by (simp add: entries_ok_def entry_simps_evaluated field_numbers cong: list_all_weak)

lemma field_map_ok_44: "list_all (\<lambda>(i, vs). entries_ok vs) ts_field_map_entries_44"
  unfolding ts_field_map_entries_44_def
  by (simp add: entries_ok_def entry_simps_evaluated field_numbers cong: list_all_weak)

lemma field_map_ok_45: "list_all (\<lambda>(i, vs). entries_ok vs) ts_field_map_entries_45"
  unfolding ts_field_map_entries_45_def
  by (simp add: entries_ok_def entry_simps_evaluated field_numbers cong: list_all_weak)

lemma field_map_ok_46: "list_all (\<lambda>(i, vs). entries_ok vs) ts_field_map_entries_46"
  unfolding ts_field_map_entries_46_def
  by (simp add: entries_ok_def entry_simps_evaluated field_numbers cong: list_all_weak)

lemma field_map_ok_47: "list_all (\<lambda>(i, vs). entries_ok vs) ts_field_map_entries_47"
  unfolding ts_field_map_entries_47_def
  by (simp add: entries_ok_def entry_simps_evaluated field_numbers cong: list_all_weak)

lemma field_map_ok_48: "list_all (\<lambda>(i, vs). entries_ok vs) ts_field_map_entries_48"
  unfolding ts_field_map_entries_48_def
  by (simp add: entries_ok_def entry_simps_evaluated field_numbers cong: list_all_weak)

lemma field_map_ok_49: "list_all (\<lambda>(i, vs). entries_ok vs) ts_field_map_entries_49"
  unfolding ts_field_map_entries_49_def
  by (simp add: entries_ok_def entry_simps_evaluated field_numbers cong: list_all_weak)

lemma field_map_ok_50: "list_all (\<lambda>(i, vs). entries_ok vs) ts_field_map_entries_50"
  unfolding ts_field_map_entries_50_def
  by (simp add: entries_ok_def entry_simps_evaluated field_numbers cong: list_all_weak)

lemma field_map_ok_51: "list_all (\<lambda>(i, vs). entries_ok vs) ts_field_map_entries_51"
  unfolding ts_field_map_entries_51_def
  by (simp add: entries_ok_def entry_simps_evaluated field_numbers cong: list_all_weak)

lemma field_map_ok_52: "list_all (\<lambda>(i, vs). entries_ok vs) ts_field_map_entries_52"
  unfolding ts_field_map_entries_52_def
  by (simp add: entries_ok_def entry_simps_evaluated field_numbers cong: list_all_weak)

lemma field_map_ok_53: "list_all (\<lambda>(i, vs). entries_ok vs) ts_field_map_entries_53"
  unfolding ts_field_map_entries_53_def
  by (simp add: entries_ok_def entry_simps_evaluated field_numbers cong: list_all_weak)

lemma field_map_ok_54: "list_all (\<lambda>(i, vs). entries_ok vs) ts_field_map_entries_54"
  unfolding ts_field_map_entries_54_def
  by (simp add: entries_ok_def entry_simps_evaluated field_numbers cong: list_all_weak)

lemma field_map_ok_55: "list_all (\<lambda>(i, vs). entries_ok vs) ts_field_map_entries_55"
  unfolding ts_field_map_entries_55_def
  by (simp add: entries_ok_def entry_simps_evaluated field_numbers cong: list_all_weak)

lemma field_map_ok_56: "list_all (\<lambda>(i, vs). entries_ok vs) ts_field_map_entries_56"
  unfolding ts_field_map_entries_56_def
  by (simp add: entries_ok_def entry_simps_evaluated field_numbers cong: list_all_weak)

lemma field_map_ok_57: "list_all (\<lambda>(i, vs). entries_ok vs) ts_field_map_entries_57"
  unfolding ts_field_map_entries_57_def
  by (simp add: entries_ok_def entry_simps_evaluated field_numbers cong: list_all_weak)

lemma field_map_ok_58: "list_all (\<lambda>(i, vs). entries_ok vs) ts_field_map_entries_58"
  unfolding ts_field_map_entries_58_def
  by (simp add: entries_ok_def entry_simps_evaluated field_numbers cong: list_all_weak)

lemma field_map_ok_59: "list_all (\<lambda>(i, vs). entries_ok vs) ts_field_map_entries_59"
  unfolding ts_field_map_entries_59_def
  by (simp add: entries_ok_def entry_simps_evaluated field_numbers cong: list_all_weak)

lemma field_map_ok_60: "list_all (\<lambda>(i, vs). entries_ok vs) ts_field_map_entries_60"
  unfolding ts_field_map_entries_60_def
  by (simp add: entries_ok_def entry_simps_evaluated field_numbers cong: list_all_weak)

lemma field_map_ok_61: "list_all (\<lambda>(i, vs). entries_ok vs) ts_field_map_entries_61"
  unfolding ts_field_map_entries_61_def
  by (simp add: entries_ok_def entry_simps_evaluated field_numbers cong: list_all_weak)

lemma field_map_ok_62: "list_all (\<lambda>(i, vs). entries_ok vs) ts_field_map_entries_62"
  unfolding ts_field_map_entries_62_def
  by (simp add: entries_ok_def entry_simps_evaluated field_numbers cong: list_all_weak)

lemma field_map_ok_63: "list_all (\<lambda>(i, vs). entries_ok vs) ts_field_map_entries_63"
  unfolding ts_field_map_entries_63_def
  by (simp add: entries_ok_def entry_simps_evaluated field_numbers cong: list_all_weak)

lemma field_map_ok_64: "list_all (\<lambda>(i, vs). entries_ok vs) ts_field_map_entries_64"
  unfolding ts_field_map_entries_64_def
  by (simp add: entries_ok_def entry_simps_evaluated field_numbers cong: list_all_weak)

lemma field_map_ok_65: "list_all (\<lambda>(i, vs). entries_ok vs) ts_field_map_entries_65"
  unfolding ts_field_map_entries_65_def
  by (simp add: entries_ok_def entry_simps_evaluated field_numbers cong: list_all_weak)

lemma field_map_ok_66: "list_all (\<lambda>(i, vs). entries_ok vs) ts_field_map_entries_66"
  unfolding ts_field_map_entries_66_def
  by (simp add: entries_ok_def entry_simps_evaluated field_numbers cong: list_all_weak)

lemma field_map_ok_67: "list_all (\<lambda>(i, vs). entries_ok vs) ts_field_map_entries_67"
  unfolding ts_field_map_entries_67_def
  by (simp add: entries_ok_def entry_simps_evaluated field_numbers cong: list_all_weak)

lemma field_map_ok_68: "list_all (\<lambda>(i, vs). entries_ok vs) ts_field_map_entries_68"
  unfolding ts_field_map_entries_68_def
  by (simp add: entries_ok_def entry_simps_evaluated field_numbers cong: list_all_weak)

lemma field_map_ok_69: "list_all (\<lambda>(i, vs). entries_ok vs) ts_field_map_entries_69"
  unfolding ts_field_map_entries_69_def
  by (simp add: entries_ok_def entry_simps_evaluated field_numbers cong: list_all_weak)

lemma field_map_ok_70: "list_all (\<lambda>(i, vs). entries_ok vs) ts_field_map_entries_70"
  unfolding ts_field_map_entries_70_def
  by (simp add: entries_ok_def entry_simps_evaluated field_numbers cong: list_all_weak)

lemma field_map_ok_71: "list_all (\<lambda>(i, vs). entries_ok vs) ts_field_map_entries_71"
  unfolding ts_field_map_entries_71_def
  by (simp add: entries_ok_def entry_simps_evaluated field_numbers cong: list_all_weak)

lemma field_map_ok_72: "list_all (\<lambda>(i, vs). entries_ok vs) ts_field_map_entries_72"
  unfolding ts_field_map_entries_72_def
  by (simp add: entries_ok_def entry_simps_evaluated field_numbers cong: list_all_weak)

lemma field_map_ok_73: "list_all (\<lambda>(i, vs). entries_ok vs) ts_field_map_entries_73"
  unfolding ts_field_map_entries_73_def
  by (simp add: entries_ok_def entry_simps_evaluated field_numbers cong: list_all_weak)

lemma field_map_ok_74: "list_all (\<lambda>(i, vs). entries_ok vs) ts_field_map_entries_74"
  unfolding ts_field_map_entries_74_def
  by (simp add: entries_ok_def entry_simps_evaluated field_numbers cong: list_all_weak)

lemma field_map_ok_75: "list_all (\<lambda>(i, vs). entries_ok vs) ts_field_map_entries_75"
  unfolding ts_field_map_entries_75_def
  by (simp add: entries_ok_def entry_simps_evaluated field_numbers cong: list_all_weak)

lemma field_map_ok_76: "list_all (\<lambda>(i, vs). entries_ok vs) ts_field_map_entries_76"
  unfolding ts_field_map_entries_76_def
  by (simp add: entries_ok_def entry_simps_evaluated field_numbers cong: list_all_weak)

lemma field_map_ok_77: "list_all (\<lambda>(i, vs). entries_ok vs) ts_field_map_entries_77"
  unfolding ts_field_map_entries_77_def
  by (simp add: entries_ok_def entry_simps_evaluated field_numbers cong: list_all_weak)

lemma field_map_ok_78: "list_all (\<lambda>(i, vs). entries_ok vs) ts_field_map_entries_78"
  unfolding ts_field_map_entries_78_def
  by (simp add: entries_ok_def entry_simps_evaluated field_numbers cong: list_all_weak)

lemma field_map_ok_79: "list_all (\<lambda>(i, vs). entries_ok vs) ts_field_map_entries_79"
  unfolding ts_field_map_entries_79_def
  by (simp add: entries_ok_def entry_simps_evaluated field_numbers cong: list_all_weak)

lemma field_map_ok_80: "list_all (\<lambda>(i, vs). entries_ok vs) ts_field_map_entries_80"
  unfolding ts_field_map_entries_80_def
  by (simp add: entries_ok_def entry_simps_evaluated field_numbers cong: list_all_weak)

lemma field_map_ok_81: "list_all (\<lambda>(i, vs). entries_ok vs) ts_field_map_entries_81"
  unfolding ts_field_map_entries_81_def
  by (simp add: entries_ok_def entry_simps_evaluated field_numbers cong: list_all_weak)

lemma field_map_ok_82: "list_all (\<lambda>(i, vs). entries_ok vs) ts_field_map_entries_82"
  unfolding ts_field_map_entries_82_def
  by (simp add: entries_ok_def entry_simps_evaluated field_numbers cong: list_all_weak)

lemma field_map_ok_83: "list_all (\<lambda>(i, vs). entries_ok vs) ts_field_map_entries_83"
  unfolding ts_field_map_entries_83_def
  by (simp add: entries_ok_def entry_simps_evaluated field_numbers cong: list_all_weak)

lemma field_map_ok_84: "list_all (\<lambda>(i, vs). entries_ok vs) ts_field_map_entries_84"
  unfolding ts_field_map_entries_84_def
  by (simp add: entries_ok_def entry_simps_evaluated field_numbers cong: list_all_weak)

lemma field_map_ok_85: "list_all (\<lambda>(i, vs). entries_ok vs) ts_field_map_entries_85"
  unfolding ts_field_map_entries_85_def
  by (simp add: entries_ok_def entry_simps_evaluated field_numbers cong: list_all_weak)

lemma field_map_ok_86: "list_all (\<lambda>(i, vs). entries_ok vs) ts_field_map_entries_86"
  unfolding ts_field_map_entries_86_def
  by (simp add: entries_ok_def entry_simps_evaluated field_numbers cong: list_all_weak)

lemma field_map_ok_87: "list_all (\<lambda>(i, vs). entries_ok vs) ts_field_map_entries_87"
  unfolding ts_field_map_entries_87_def
  by (simp add: entries_ok_def entry_simps_evaluated field_numbers cong: list_all_weak)

lemma field_map_ok_88: "list_all (\<lambda>(i, vs). entries_ok vs) ts_field_map_entries_88"
  unfolding ts_field_map_entries_88_def
  by (simp add: entries_ok_def entry_simps_evaluated field_numbers cong: list_all_weak)

lemma field_map_ok_89: "list_all (\<lambda>(i, vs). entries_ok vs) ts_field_map_entries_89"
  unfolding ts_field_map_entries_89_def
  by (simp add: entries_ok_def entry_simps_evaluated field_numbers cong: list_all_weak)

lemma field_map_ok_90: "list_all (\<lambda>(i, vs). entries_ok vs) ts_field_map_entries_90"
  unfolding ts_field_map_entries_90_def
  by (simp add: entries_ok_def entry_simps_evaluated field_numbers cong: list_all_weak)

lemma field_map_ok_91: "list_all (\<lambda>(i, vs). entries_ok vs) ts_field_map_entries_91"
  unfolding ts_field_map_entries_91_def
  by (simp add: entries_ok_def entry_simps_evaluated field_numbers cong: list_all_weak)

lemma field_map_ok_92: "list_all (\<lambda>(i, vs). entries_ok vs) ts_field_map_entries_92"
  unfolding ts_field_map_entries_92_def
  by (simp add: entries_ok_def entry_simps_evaluated field_numbers cong: list_all_weak)

lemma field_map_ok_93: "list_all (\<lambda>(i, vs). entries_ok vs) ts_field_map_entries_93"
  unfolding ts_field_map_entries_93_def
  by (simp add: entries_ok_def entry_simps_evaluated field_numbers cong: list_all_weak)

lemma field_map_ok_94: "list_all (\<lambda>(i, vs). entries_ok vs) ts_field_map_entries_94"
  unfolding ts_field_map_entries_94_def
  by (simp add: entries_ok_def entry_simps_evaluated field_numbers cong: list_all_weak)

lemma field_map_ok_95: "list_all (\<lambda>(i, vs). entries_ok vs) ts_field_map_entries_95"
  unfolding ts_field_map_entries_95_def
  by (simp add: entries_ok_def entry_simps_evaluated field_numbers cong: list_all_weak)

lemma field_map_ok_96: "list_all (\<lambda>(i, vs). entries_ok vs) ts_field_map_entries_96"
  unfolding ts_field_map_entries_96_def
  by (simp add: entries_ok_def entry_simps_evaluated field_numbers cong: list_all_weak)

lemma field_map_ok_97: "list_all (\<lambda>(i, vs). entries_ok vs) ts_field_map_entries_97"
  unfolding ts_field_map_entries_97_def
  by (simp add: entries_ok_def entry_simps_evaluated field_numbers cong: list_all_weak)

lemma field_map_ok_98: "list_all (\<lambda>(i, vs). entries_ok vs) ts_field_map_entries_98"
  unfolding ts_field_map_entries_98_def
  by (simp add: entries_ok_def entry_simps_evaluated field_numbers cong: list_all_weak)

lemma field_map_ok_99: "list_all (\<lambda>(i, vs). entries_ok vs) ts_field_map_entries_99"
  unfolding ts_field_map_entries_99_def
  by (simp add: entries_ok_def entry_simps_evaluated field_numbers cong: list_all_weak)

lemma field_map_ok_100: "list_all (\<lambda>(i, vs). entries_ok vs) ts_field_map_entries_100"
  unfolding ts_field_map_entries_100_def
  by (simp add: entries_ok_def entry_simps_evaluated field_numbers cong: list_all_weak)

lemma field_map_ok_101: "list_all (\<lambda>(i, vs). entries_ok vs) ts_field_map_entries_101"
  unfolding ts_field_map_entries_101_def
  by (simp add: entries_ok_def entry_simps_evaluated field_numbers cong: list_all_weak)

lemma field_map_ok_102: "list_all (\<lambda>(i, vs). entries_ok vs) ts_field_map_entries_102"
  unfolding ts_field_map_entries_102_def
  by (simp add: entries_ok_def entry_simps_evaluated field_numbers cong: list_all_weak)

lemma field_map_ok_103: "list_all (\<lambda>(i, vs). entries_ok vs) ts_field_map_entries_103"
  unfolding ts_field_map_entries_103_def
  by (simp add: entries_ok_def entry_simps_evaluated field_numbers cong: list_all_weak)

lemma field_map_ok_104: "list_all (\<lambda>(i, vs). entries_ok vs) ts_field_map_entries_104"
  unfolding ts_field_map_entries_104_def
  by (simp add: entries_ok_def entry_simps_evaluated field_numbers cong: list_all_weak)

lemma field_map_ok_105: "list_all (\<lambda>(i, vs). entries_ok vs) ts_field_map_entries_105"
  unfolding ts_field_map_entries_105_def
  by (simp add: entries_ok_def entry_simps_evaluated field_numbers cong: list_all_weak)

lemma field_map_ok_106: "list_all (\<lambda>(i, vs). entries_ok vs) ts_field_map_entries_106"
  unfolding ts_field_map_entries_106_def
  by (simp add: entries_ok_def entry_simps_evaluated field_numbers cong: list_all_weak)

lemma field_map_ok_107: "list_all (\<lambda>(i, vs). entries_ok vs) ts_field_map_entries_107"
  unfolding ts_field_map_entries_107_def
  by (simp add: entries_ok_def entry_simps_evaluated field_numbers cong: list_all_weak)

lemma field_map_ok_108: "list_all (\<lambda>(i, vs). entries_ok vs) ts_field_map_entries_108"
  unfolding ts_field_map_entries_108_def
  by (simp add: entries_ok_def entry_simps_evaluated field_numbers cong: list_all_weak)

lemma field_map_ok_109: "list_all (\<lambda>(i, vs). entries_ok vs) ts_field_map_entries_109"
  unfolding ts_field_map_entries_109_def
  by (simp add: entries_ok_def entry_simps_evaluated field_numbers cong: list_all_weak)

lemma field_map_ok_110: "list_all (\<lambda>(i, vs). entries_ok vs) ts_field_map_entries_110"
  unfolding ts_field_map_entries_110_def
  by (simp add: entries_ok_def entry_simps_evaluated field_numbers cong: list_all_weak)

lemma field_map_ok_111: "list_all (\<lambda>(i, vs). entries_ok vs) ts_field_map_entries_111"
  unfolding ts_field_map_entries_111_def
  by (simp add: entries_ok_def entry_simps_evaluated field_numbers cong: list_all_weak)

lemma field_map_ok_112: "list_all (\<lambda>(i, vs). entries_ok vs) ts_field_map_entries_112"
  unfolding ts_field_map_entries_112_def
  by (simp add: entries_ok_def entry_simps_evaluated field_numbers cong: list_all_weak)

lemma field_map_ok_113: "list_all (\<lambda>(i, vs). entries_ok vs) ts_field_map_entries_113"
  unfolding ts_field_map_entries_113_def
  by (simp add: entries_ok_def entry_simps_evaluated field_numbers cong: list_all_weak)

lemma field_map_ok_114: "list_all (\<lambda>(i, vs). entries_ok vs) ts_field_map_entries_114"
  unfolding ts_field_map_entries_114_def
  by (simp add: entries_ok_def entry_simps_evaluated field_numbers cong: list_all_weak)

lemma field_map_ok_115: "list_all (\<lambda>(i, vs). entries_ok vs) ts_field_map_entries_115"
  unfolding ts_field_map_entries_115_def
  by (simp add: entries_ok_def entry_simps_evaluated field_numbers cong: list_all_weak)

lemma field_map_ok_116: "list_all (\<lambda>(i, vs). entries_ok vs) ts_field_map_entries_116"
  unfolding ts_field_map_entries_116_def
  by (simp add: entries_ok_def entry_simps_evaluated field_numbers cong: list_all_weak)

lemma field_map_ok_117: "list_all (\<lambda>(i, vs). entries_ok vs) ts_field_map_entries_117"
  unfolding ts_field_map_entries_117_def
  by (simp add: entries_ok_def entry_simps_evaluated field_numbers cong: list_all_weak)

lemma field_map_entries_ok: "list_all (\<lambda>(i, vs). entries_ok vs) field_map_runs"
  by (simp add: field_map_runs_def
      field_map_ok_1 field_map_ok_2 field_map_ok_3 field_map_ok_4 field_map_ok_5 field_map_ok_6
      field_map_ok_7 field_map_ok_8 field_map_ok_9 field_map_ok_10 field_map_ok_11 field_map_ok_12
      field_map_ok_13 field_map_ok_14 field_map_ok_15 field_map_ok_16 field_map_ok_17
      field_map_ok_18 field_map_ok_19 field_map_ok_20 field_map_ok_21 field_map_ok_22
      field_map_ok_23 field_map_ok_24 field_map_ok_25 field_map_ok_26 field_map_ok_27
      field_map_ok_28 field_map_ok_29 field_map_ok_30 field_map_ok_31 field_map_ok_32
      field_map_ok_33 field_map_ok_34 field_map_ok_35 field_map_ok_36 field_map_ok_37
      field_map_ok_38 field_map_ok_39 field_map_ok_40 field_map_ok_41 field_map_ok_42
      field_map_ok_43 field_map_ok_44 field_map_ok_45 field_map_ok_46 field_map_ok_47
      field_map_ok_48 field_map_ok_49 field_map_ok_50 field_map_ok_51 field_map_ok_52
      field_map_ok_53 field_map_ok_54 field_map_ok_55 field_map_ok_56 field_map_ok_57
      field_map_ok_58 field_map_ok_59 field_map_ok_60 field_map_ok_61 field_map_ok_62
      field_map_ok_63 field_map_ok_64 field_map_ok_65 field_map_ok_66 field_map_ok_67
      field_map_ok_68 field_map_ok_69 field_map_ok_70 field_map_ok_71 field_map_ok_72
      field_map_ok_73 field_map_ok_74 field_map_ok_75 field_map_ok_76 field_map_ok_77
      field_map_ok_78 field_map_ok_79 field_map_ok_80 field_map_ok_81 field_map_ok_82
      field_map_ok_83 field_map_ok_84 field_map_ok_85 field_map_ok_86 field_map_ok_87
      field_map_ok_88 field_map_ok_89 field_map_ok_90 field_map_ok_91 field_map_ok_92
      field_map_ok_93 field_map_ok_94 field_map_ok_95 field_map_ok_96 field_map_ok_97
      field_map_ok_98 field_map_ok_99 field_map_ok_100 field_map_ok_101 field_map_ok_102
      field_map_ok_103 field_map_ok_104 field_map_ok_105 field_map_ok_106 field_map_ok_107
      field_map_ok_108 field_map_ok_109 field_map_ok_110 field_map_ok_111 field_map_ok_112
      field_map_ok_113 field_map_ok_114 field_map_ok_115 field_map_ok_116 field_map_ok_117)

interpretation field_map: run_table "Field 0 0 False" field_map_runs ts_field_map_entries
  by unfold_locales (simp_all add: field_map_tiled ts_field_map_entries_def)

definition slice_ok :: "TSMapSlice \<Rightarrow> bool" where
  "slice_ok s \<longleftrightarrow>
     slice_index s + slice_length s \<le> length ts_field_map_entries \<and>
     entries_ok (slice_of ts_field_map_entries s)"

lemma slice_ok_runs: "list_all (\<lambda>(i, vs). slice_ok (Slice i (run_length vs))) field_map_runs"
  using field_map.table_slices field_map.table_bound field_map_entries_ok
  by (fastforce simp: slice_ok_def list_all_iff run_length)

text \<open>One equation for each slice that a run gives.\<close>

lemma field_map_parts:
  assumes "list_all P field_map_runs"
  shows
    "list_all P ts_field_map_entries_1" "list_all P ts_field_map_entries_2"
    "list_all P ts_field_map_entries_3" "list_all P ts_field_map_entries_4"
    "list_all P ts_field_map_entries_5" "list_all P ts_field_map_entries_6"
    "list_all P ts_field_map_entries_7" "list_all P ts_field_map_entries_8"
    "list_all P ts_field_map_entries_9" "list_all P ts_field_map_entries_10"
    "list_all P ts_field_map_entries_11" "list_all P ts_field_map_entries_12"
    "list_all P ts_field_map_entries_13" "list_all P ts_field_map_entries_14"
    "list_all P ts_field_map_entries_15" "list_all P ts_field_map_entries_16"
    "list_all P ts_field_map_entries_17" "list_all P ts_field_map_entries_18"
    "list_all P ts_field_map_entries_19" "list_all P ts_field_map_entries_20"
    "list_all P ts_field_map_entries_21" "list_all P ts_field_map_entries_22"
    "list_all P ts_field_map_entries_23" "list_all P ts_field_map_entries_24"
    "list_all P ts_field_map_entries_25" "list_all P ts_field_map_entries_26"
    "list_all P ts_field_map_entries_27" "list_all P ts_field_map_entries_28"
    "list_all P ts_field_map_entries_29" "list_all P ts_field_map_entries_30"
    "list_all P ts_field_map_entries_31" "list_all P ts_field_map_entries_32"
    "list_all P ts_field_map_entries_33" "list_all P ts_field_map_entries_34"
    "list_all P ts_field_map_entries_35" "list_all P ts_field_map_entries_36"
    "list_all P ts_field_map_entries_37" "list_all P ts_field_map_entries_38"
    "list_all P ts_field_map_entries_39" "list_all P ts_field_map_entries_40"
    "list_all P ts_field_map_entries_41" "list_all P ts_field_map_entries_42"
    "list_all P ts_field_map_entries_43" "list_all P ts_field_map_entries_44"
    "list_all P ts_field_map_entries_45" "list_all P ts_field_map_entries_46"
    "list_all P ts_field_map_entries_47" "list_all P ts_field_map_entries_48"
    "list_all P ts_field_map_entries_49" "list_all P ts_field_map_entries_50"
    "list_all P ts_field_map_entries_51" "list_all P ts_field_map_entries_52"
    "list_all P ts_field_map_entries_53" "list_all P ts_field_map_entries_54"
    "list_all P ts_field_map_entries_55" "list_all P ts_field_map_entries_56"
    "list_all P ts_field_map_entries_57" "list_all P ts_field_map_entries_58"
    "list_all P ts_field_map_entries_59" "list_all P ts_field_map_entries_60"
    "list_all P ts_field_map_entries_61" "list_all P ts_field_map_entries_62"
    "list_all P ts_field_map_entries_63" "list_all P ts_field_map_entries_64"
    "list_all P ts_field_map_entries_65" "list_all P ts_field_map_entries_66"
    "list_all P ts_field_map_entries_67" "list_all P ts_field_map_entries_68"
    "list_all P ts_field_map_entries_69" "list_all P ts_field_map_entries_70"
    "list_all P ts_field_map_entries_71" "list_all P ts_field_map_entries_72"
    "list_all P ts_field_map_entries_73" "list_all P ts_field_map_entries_74"
    "list_all P ts_field_map_entries_75" "list_all P ts_field_map_entries_76"
    "list_all P ts_field_map_entries_77" "list_all P ts_field_map_entries_78"
    "list_all P ts_field_map_entries_79" "list_all P ts_field_map_entries_80"
    "list_all P ts_field_map_entries_81" "list_all P ts_field_map_entries_82"
    "list_all P ts_field_map_entries_83" "list_all P ts_field_map_entries_84"
    "list_all P ts_field_map_entries_85" "list_all P ts_field_map_entries_86"
    "list_all P ts_field_map_entries_87" "list_all P ts_field_map_entries_88"
    "list_all P ts_field_map_entries_89" "list_all P ts_field_map_entries_90"
    "list_all P ts_field_map_entries_91" "list_all P ts_field_map_entries_92"
    "list_all P ts_field_map_entries_93" "list_all P ts_field_map_entries_94"
    "list_all P ts_field_map_entries_95" "list_all P ts_field_map_entries_96"
    "list_all P ts_field_map_entries_97" "list_all P ts_field_map_entries_98"
    "list_all P ts_field_map_entries_99" "list_all P ts_field_map_entries_100"
    "list_all P ts_field_map_entries_101" "list_all P ts_field_map_entries_102"
    "list_all P ts_field_map_entries_103" "list_all P ts_field_map_entries_104"
    "list_all P ts_field_map_entries_105" "list_all P ts_field_map_entries_106"
    "list_all P ts_field_map_entries_107" "list_all P ts_field_map_entries_108"
    "list_all P ts_field_map_entries_109" "list_all P ts_field_map_entries_110"
    "list_all P ts_field_map_entries_111" "list_all P ts_field_map_entries_112"
    "list_all P ts_field_map_entries_113" "list_all P ts_field_map_entries_114"
    "list_all P ts_field_map_entries_115" "list_all P ts_field_map_entries_116"
    "list_all P ts_field_map_entries_117"
  using assms unfolding field_map_runs_def list_all_append by - (elim conjE, assumption)+

lemmas slice_ok_1 [simp] =
  field_map_parts(1) [OF slice_ok_runs, unfolded ts_field_map_entries_1_def entry_simps run_length_simps]

lemmas slice_ok_2 [simp] =
  field_map_parts(2) [OF slice_ok_runs, unfolded ts_field_map_entries_2_def entry_simps run_length_simps]

lemmas slice_ok_3 [simp] =
  field_map_parts(3) [OF slice_ok_runs, unfolded ts_field_map_entries_3_def entry_simps run_length_simps]

lemmas slice_ok_4 [simp] =
  field_map_parts(4) [OF slice_ok_runs, unfolded ts_field_map_entries_4_def entry_simps run_length_simps]

lemmas slice_ok_5 [simp] =
  field_map_parts(5) [OF slice_ok_runs, unfolded ts_field_map_entries_5_def entry_simps run_length_simps]

lemmas slice_ok_6 [simp] =
  field_map_parts(6) [OF slice_ok_runs, unfolded ts_field_map_entries_6_def entry_simps run_length_simps]

lemmas slice_ok_7 [simp] =
  field_map_parts(7) [OF slice_ok_runs, unfolded ts_field_map_entries_7_def entry_simps run_length_simps]

lemmas slice_ok_8 [simp] =
  field_map_parts(8) [OF slice_ok_runs, unfolded ts_field_map_entries_8_def entry_simps run_length_simps]

lemmas slice_ok_9 [simp] =
  field_map_parts(9) [OF slice_ok_runs, unfolded ts_field_map_entries_9_def entry_simps run_length_simps]

lemmas slice_ok_10 [simp] =
  field_map_parts(10) [OF slice_ok_runs, unfolded ts_field_map_entries_10_def entry_simps run_length_simps]

lemmas slice_ok_11 [simp] =
  field_map_parts(11) [OF slice_ok_runs, unfolded ts_field_map_entries_11_def entry_simps run_length_simps]

lemmas slice_ok_12 [simp] =
  field_map_parts(12) [OF slice_ok_runs, unfolded ts_field_map_entries_12_def entry_simps run_length_simps]

lemmas slice_ok_13 [simp] =
  field_map_parts(13) [OF slice_ok_runs, unfolded ts_field_map_entries_13_def entry_simps run_length_simps]

lemmas slice_ok_14 [simp] =
  field_map_parts(14) [OF slice_ok_runs, unfolded ts_field_map_entries_14_def entry_simps run_length_simps]

lemmas slice_ok_15 [simp] =
  field_map_parts(15) [OF slice_ok_runs, unfolded ts_field_map_entries_15_def entry_simps run_length_simps]

lemmas slice_ok_16 [simp] =
  field_map_parts(16) [OF slice_ok_runs, unfolded ts_field_map_entries_16_def entry_simps run_length_simps]

lemmas slice_ok_17 [simp] =
  field_map_parts(17) [OF slice_ok_runs, unfolded ts_field_map_entries_17_def entry_simps run_length_simps]

lemmas slice_ok_18 [simp] =
  field_map_parts(18) [OF slice_ok_runs, unfolded ts_field_map_entries_18_def entry_simps run_length_simps]

lemmas slice_ok_19 [simp] =
  field_map_parts(19) [OF slice_ok_runs, unfolded ts_field_map_entries_19_def entry_simps run_length_simps]

lemmas slice_ok_20 [simp] =
  field_map_parts(20) [OF slice_ok_runs, unfolded ts_field_map_entries_20_def entry_simps run_length_simps]

lemmas slice_ok_21 [simp] =
  field_map_parts(21) [OF slice_ok_runs, unfolded ts_field_map_entries_21_def entry_simps run_length_simps]

lemmas slice_ok_22 [simp] =
  field_map_parts(22) [OF slice_ok_runs, unfolded ts_field_map_entries_22_def entry_simps run_length_simps]

lemmas slice_ok_23 [simp] =
  field_map_parts(23) [OF slice_ok_runs, unfolded ts_field_map_entries_23_def entry_simps run_length_simps]

lemmas slice_ok_24 [simp] =
  field_map_parts(24) [OF slice_ok_runs, unfolded ts_field_map_entries_24_def entry_simps run_length_simps]

lemmas slice_ok_25 [simp] =
  field_map_parts(25) [OF slice_ok_runs, unfolded ts_field_map_entries_25_def entry_simps run_length_simps]

lemmas slice_ok_26 [simp] =
  field_map_parts(26) [OF slice_ok_runs, unfolded ts_field_map_entries_26_def entry_simps run_length_simps]

lemmas slice_ok_27 [simp] =
  field_map_parts(27) [OF slice_ok_runs, unfolded ts_field_map_entries_27_def entry_simps run_length_simps]

lemmas slice_ok_28 [simp] =
  field_map_parts(28) [OF slice_ok_runs, unfolded ts_field_map_entries_28_def entry_simps run_length_simps]

lemmas slice_ok_29 [simp] =
  field_map_parts(29) [OF slice_ok_runs, unfolded ts_field_map_entries_29_def entry_simps run_length_simps]

lemmas slice_ok_30 [simp] =
  field_map_parts(30) [OF slice_ok_runs, unfolded ts_field_map_entries_30_def entry_simps run_length_simps]

lemmas slice_ok_31 [simp] =
  field_map_parts(31) [OF slice_ok_runs, unfolded ts_field_map_entries_31_def entry_simps run_length_simps]

lemmas slice_ok_32 [simp] =
  field_map_parts(32) [OF slice_ok_runs, unfolded ts_field_map_entries_32_def entry_simps run_length_simps]

lemmas slice_ok_33 [simp] =
  field_map_parts(33) [OF slice_ok_runs, unfolded ts_field_map_entries_33_def entry_simps run_length_simps]

lemmas slice_ok_34 [simp] =
  field_map_parts(34) [OF slice_ok_runs, unfolded ts_field_map_entries_34_def entry_simps run_length_simps]

lemmas slice_ok_35 [simp] =
  field_map_parts(35) [OF slice_ok_runs, unfolded ts_field_map_entries_35_def entry_simps run_length_simps]

lemmas slice_ok_36 [simp] =
  field_map_parts(36) [OF slice_ok_runs, unfolded ts_field_map_entries_36_def entry_simps run_length_simps]

lemmas slice_ok_37 [simp] =
  field_map_parts(37) [OF slice_ok_runs, unfolded ts_field_map_entries_37_def entry_simps run_length_simps]

lemmas slice_ok_38 [simp] =
  field_map_parts(38) [OF slice_ok_runs, unfolded ts_field_map_entries_38_def entry_simps run_length_simps]

lemmas slice_ok_39 [simp] =
  field_map_parts(39) [OF slice_ok_runs, unfolded ts_field_map_entries_39_def entry_simps run_length_simps]

lemmas slice_ok_40 [simp] =
  field_map_parts(40) [OF slice_ok_runs, unfolded ts_field_map_entries_40_def entry_simps run_length_simps]

lemmas slice_ok_41 [simp] =
  field_map_parts(41) [OF slice_ok_runs, unfolded ts_field_map_entries_41_def entry_simps run_length_simps]

lemmas slice_ok_42 [simp] =
  field_map_parts(42) [OF slice_ok_runs, unfolded ts_field_map_entries_42_def entry_simps run_length_simps]

lemmas slice_ok_43 [simp] =
  field_map_parts(43) [OF slice_ok_runs, unfolded ts_field_map_entries_43_def entry_simps run_length_simps]

lemmas slice_ok_44 [simp] =
  field_map_parts(44) [OF slice_ok_runs, unfolded ts_field_map_entries_44_def entry_simps run_length_simps]

lemmas slice_ok_45 [simp] =
  field_map_parts(45) [OF slice_ok_runs, unfolded ts_field_map_entries_45_def entry_simps run_length_simps]

lemmas slice_ok_46 [simp] =
  field_map_parts(46) [OF slice_ok_runs, unfolded ts_field_map_entries_46_def entry_simps run_length_simps]

lemmas slice_ok_47 [simp] =
  field_map_parts(47) [OF slice_ok_runs, unfolded ts_field_map_entries_47_def entry_simps run_length_simps]

lemmas slice_ok_48 [simp] =
  field_map_parts(48) [OF slice_ok_runs, unfolded ts_field_map_entries_48_def entry_simps run_length_simps]

lemmas slice_ok_49 [simp] =
  field_map_parts(49) [OF slice_ok_runs, unfolded ts_field_map_entries_49_def entry_simps run_length_simps]

lemmas slice_ok_50 [simp] =
  field_map_parts(50) [OF slice_ok_runs, unfolded ts_field_map_entries_50_def entry_simps run_length_simps]

lemmas slice_ok_51 [simp] =
  field_map_parts(51) [OF slice_ok_runs, unfolded ts_field_map_entries_51_def entry_simps run_length_simps]

lemmas slice_ok_52 [simp] =
  field_map_parts(52) [OF slice_ok_runs, unfolded ts_field_map_entries_52_def entry_simps run_length_simps]

lemmas slice_ok_53 [simp] =
  field_map_parts(53) [OF slice_ok_runs, unfolded ts_field_map_entries_53_def entry_simps run_length_simps]

lemmas slice_ok_54 [simp] =
  field_map_parts(54) [OF slice_ok_runs, unfolded ts_field_map_entries_54_def entry_simps run_length_simps]

lemmas slice_ok_55 [simp] =
  field_map_parts(55) [OF slice_ok_runs, unfolded ts_field_map_entries_55_def entry_simps run_length_simps]

lemmas slice_ok_56 [simp] =
  field_map_parts(56) [OF slice_ok_runs, unfolded ts_field_map_entries_56_def entry_simps run_length_simps]

lemmas slice_ok_57 [simp] =
  field_map_parts(57) [OF slice_ok_runs, unfolded ts_field_map_entries_57_def entry_simps run_length_simps]

lemmas slice_ok_58 [simp] =
  field_map_parts(58) [OF slice_ok_runs, unfolded ts_field_map_entries_58_def entry_simps run_length_simps]

lemmas slice_ok_59 [simp] =
  field_map_parts(59) [OF slice_ok_runs, unfolded ts_field_map_entries_59_def entry_simps run_length_simps]

lemmas slice_ok_60 [simp] =
  field_map_parts(60) [OF slice_ok_runs, unfolded ts_field_map_entries_60_def entry_simps run_length_simps]

lemmas slice_ok_61 [simp] =
  field_map_parts(61) [OF slice_ok_runs, unfolded ts_field_map_entries_61_def entry_simps run_length_simps]

lemmas slice_ok_62 [simp] =
  field_map_parts(62) [OF slice_ok_runs, unfolded ts_field_map_entries_62_def entry_simps run_length_simps]

lemmas slice_ok_63 [simp] =
  field_map_parts(63) [OF slice_ok_runs, unfolded ts_field_map_entries_63_def entry_simps run_length_simps]

lemmas slice_ok_64 [simp] =
  field_map_parts(64) [OF slice_ok_runs, unfolded ts_field_map_entries_64_def entry_simps run_length_simps]

lemmas slice_ok_65 [simp] =
  field_map_parts(65) [OF slice_ok_runs, unfolded ts_field_map_entries_65_def entry_simps run_length_simps]

lemmas slice_ok_66 [simp] =
  field_map_parts(66) [OF slice_ok_runs, unfolded ts_field_map_entries_66_def entry_simps run_length_simps]

lemmas slice_ok_67 [simp] =
  field_map_parts(67) [OF slice_ok_runs, unfolded ts_field_map_entries_67_def entry_simps run_length_simps]

lemmas slice_ok_68 [simp] =
  field_map_parts(68) [OF slice_ok_runs, unfolded ts_field_map_entries_68_def entry_simps run_length_simps]

lemmas slice_ok_69 [simp] =
  field_map_parts(69) [OF slice_ok_runs, unfolded ts_field_map_entries_69_def entry_simps run_length_simps]

lemmas slice_ok_70 [simp] =
  field_map_parts(70) [OF slice_ok_runs, unfolded ts_field_map_entries_70_def entry_simps run_length_simps]

lemmas slice_ok_71 [simp] =
  field_map_parts(71) [OF slice_ok_runs, unfolded ts_field_map_entries_71_def entry_simps run_length_simps]

lemmas slice_ok_72 [simp] =
  field_map_parts(72) [OF slice_ok_runs, unfolded ts_field_map_entries_72_def entry_simps run_length_simps]

lemmas slice_ok_73 [simp] =
  field_map_parts(73) [OF slice_ok_runs, unfolded ts_field_map_entries_73_def entry_simps run_length_simps]

lemmas slice_ok_74 [simp] =
  field_map_parts(74) [OF slice_ok_runs, unfolded ts_field_map_entries_74_def entry_simps run_length_simps]

lemmas slice_ok_75 [simp] =
  field_map_parts(75) [OF slice_ok_runs, unfolded ts_field_map_entries_75_def entry_simps run_length_simps]

lemmas slice_ok_76 [simp] =
  field_map_parts(76) [OF slice_ok_runs, unfolded ts_field_map_entries_76_def entry_simps run_length_simps]

lemmas slice_ok_77 [simp] =
  field_map_parts(77) [OF slice_ok_runs, unfolded ts_field_map_entries_77_def entry_simps run_length_simps]

lemmas slice_ok_78 [simp] =
  field_map_parts(78) [OF slice_ok_runs, unfolded ts_field_map_entries_78_def entry_simps run_length_simps]

lemmas slice_ok_79 [simp] =
  field_map_parts(79) [OF slice_ok_runs, unfolded ts_field_map_entries_79_def entry_simps run_length_simps]

lemmas slice_ok_80 [simp] =
  field_map_parts(80) [OF slice_ok_runs, unfolded ts_field_map_entries_80_def entry_simps run_length_simps]

lemmas slice_ok_81 [simp] =
  field_map_parts(81) [OF slice_ok_runs, unfolded ts_field_map_entries_81_def entry_simps run_length_simps]

lemmas slice_ok_82 [simp] =
  field_map_parts(82) [OF slice_ok_runs, unfolded ts_field_map_entries_82_def entry_simps run_length_simps]

lemmas slice_ok_83 [simp] =
  field_map_parts(83) [OF slice_ok_runs, unfolded ts_field_map_entries_83_def entry_simps run_length_simps]

lemmas slice_ok_84 [simp] =
  field_map_parts(84) [OF slice_ok_runs, unfolded ts_field_map_entries_84_def entry_simps run_length_simps]

lemmas slice_ok_85 [simp] =
  field_map_parts(85) [OF slice_ok_runs, unfolded ts_field_map_entries_85_def entry_simps run_length_simps]

lemmas slice_ok_86 [simp] =
  field_map_parts(86) [OF slice_ok_runs, unfolded ts_field_map_entries_86_def entry_simps run_length_simps]

lemmas slice_ok_87 [simp] =
  field_map_parts(87) [OF slice_ok_runs, unfolded ts_field_map_entries_87_def entry_simps run_length_simps]

lemmas slice_ok_88 [simp] =
  field_map_parts(88) [OF slice_ok_runs, unfolded ts_field_map_entries_88_def entry_simps run_length_simps]

lemmas slice_ok_89 [simp] =
  field_map_parts(89) [OF slice_ok_runs, unfolded ts_field_map_entries_89_def entry_simps run_length_simps]

lemmas slice_ok_90 [simp] =
  field_map_parts(90) [OF slice_ok_runs, unfolded ts_field_map_entries_90_def entry_simps run_length_simps]

lemmas slice_ok_91 [simp] =
  field_map_parts(91) [OF slice_ok_runs, unfolded ts_field_map_entries_91_def entry_simps run_length_simps]

lemmas slice_ok_92 [simp] =
  field_map_parts(92) [OF slice_ok_runs, unfolded ts_field_map_entries_92_def entry_simps run_length_simps]

lemmas slice_ok_93 [simp] =
  field_map_parts(93) [OF slice_ok_runs, unfolded ts_field_map_entries_93_def entry_simps run_length_simps]

lemmas slice_ok_94 [simp] =
  field_map_parts(94) [OF slice_ok_runs, unfolded ts_field_map_entries_94_def entry_simps run_length_simps]

lemmas slice_ok_95 [simp] =
  field_map_parts(95) [OF slice_ok_runs, unfolded ts_field_map_entries_95_def entry_simps run_length_simps]

lemmas slice_ok_96 [simp] =
  field_map_parts(96) [OF slice_ok_runs, unfolded ts_field_map_entries_96_def entry_simps run_length_simps]

lemmas slice_ok_97 [simp] =
  field_map_parts(97) [OF slice_ok_runs, unfolded ts_field_map_entries_97_def entry_simps run_length_simps]

lemmas slice_ok_98 [simp] =
  field_map_parts(98) [OF slice_ok_runs, unfolded ts_field_map_entries_98_def entry_simps run_length_simps]

lemmas slice_ok_99 [simp] =
  field_map_parts(99) [OF slice_ok_runs, unfolded ts_field_map_entries_99_def entry_simps run_length_simps]

lemmas slice_ok_100 [simp] =
  field_map_parts(100) [OF slice_ok_runs, unfolded ts_field_map_entries_100_def entry_simps run_length_simps]

lemmas slice_ok_101 [simp] =
  field_map_parts(101) [OF slice_ok_runs, unfolded ts_field_map_entries_101_def entry_simps run_length_simps]

lemmas slice_ok_102 [simp] =
  field_map_parts(102) [OF slice_ok_runs, unfolded ts_field_map_entries_102_def entry_simps run_length_simps]

lemmas slice_ok_103 [simp] =
  field_map_parts(103) [OF slice_ok_runs, unfolded ts_field_map_entries_103_def entry_simps run_length_simps]

lemmas slice_ok_104 [simp] =
  field_map_parts(104) [OF slice_ok_runs, unfolded ts_field_map_entries_104_def entry_simps run_length_simps]

lemmas slice_ok_105 [simp] =
  field_map_parts(105) [OF slice_ok_runs, unfolded ts_field_map_entries_105_def entry_simps run_length_simps]

lemmas slice_ok_106 [simp] =
  field_map_parts(106) [OF slice_ok_runs, unfolded ts_field_map_entries_106_def entry_simps run_length_simps]

lemmas slice_ok_107 [simp] =
  field_map_parts(107) [OF slice_ok_runs, unfolded ts_field_map_entries_107_def entry_simps run_length_simps]

lemmas slice_ok_108 [simp] =
  field_map_parts(108) [OF slice_ok_runs, unfolded ts_field_map_entries_108_def entry_simps run_length_simps]

lemmas slice_ok_109 [simp] =
  field_map_parts(109) [OF slice_ok_runs, unfolded ts_field_map_entries_109_def entry_simps run_length_simps]

lemmas slice_ok_110 [simp] =
  field_map_parts(110) [OF slice_ok_runs, unfolded ts_field_map_entries_110_def entry_simps run_length_simps]

lemmas slice_ok_111 [simp] =
  field_map_parts(111) [OF slice_ok_runs, unfolded ts_field_map_entries_111_def entry_simps run_length_simps]

lemmas slice_ok_112 [simp] =
  field_map_parts(112) [OF slice_ok_runs, unfolded ts_field_map_entries_112_def entry_simps run_length_simps]

lemmas slice_ok_113 [simp] =
  field_map_parts(113) [OF slice_ok_runs, unfolded ts_field_map_entries_113_def entry_simps run_length_simps]

lemmas slice_ok_114 [simp] =
  field_map_parts(114) [OF slice_ok_runs, unfolded ts_field_map_entries_114_def entry_simps run_length_simps]

lemmas slice_ok_115 [simp] =
  field_map_parts(115) [OF slice_ok_runs, unfolded ts_field_map_entries_115_def entry_simps run_length_simps]

lemmas slice_ok_116 [simp] =
  field_map_parts(116) [OF slice_ok_runs, unfolded ts_field_map_entries_116_def entry_simps run_length_simps]

lemmas slice_ok_117 [simp] =
  field_map_parts(117) [OF slice_ok_runs, unfolded ts_field_map_entries_117_def entry_simps run_length_simps]

lemma slice_ok_empty: "slice_ok (Slice 0 0)"
  by (simp add: slice_ok_def slice_of_def entries_ok_def)

lemma field_slices_1: "increasing_from 0 ts_field_map_slices_1 \<and> after_designators 0 ts_field_map_slices_1 = 169"
  unfolding ts_field_map_slices_1_def by (simp cong: designators_weak)

lemma field_slices_2: "increasing_from 169 ts_field_map_slices_2 \<and> after_designators 169 ts_field_map_slices_2 = 319"
  unfolding ts_field_map_slices_2_def by (simp cong: designators_weak)

lemma field_slices_3: "increasing_from 319 ts_field_map_slices_3 \<and> after_designators 319 ts_field_map_slices_3 = 469"
  unfolding ts_field_map_slices_3_def by (simp cong: designators_weak)

lemma field_slices_4: "increasing_from 469 ts_field_map_slices_4 \<and> after_designators 469 ts_field_map_slices_4 = 619"
  unfolding ts_field_map_slices_4_def by (simp cong: designators_weak)

lemma field_slices_5: "increasing_from 619 ts_field_map_slices_5 \<and> after_designators 619 ts_field_map_slices_5 = 769"
  unfolding ts_field_map_slices_5_def by (simp cong: designators_weak)

lemma field_slices_6: "increasing_from 769 ts_field_map_slices_6 \<and> after_designators 769 ts_field_map_slices_6 = 919"
  unfolding ts_field_map_slices_6_def by (simp cong: designators_weak)

lemma field_slices_7: "increasing_from 919 ts_field_map_slices_7 \<and> after_designators 919 ts_field_map_slices_7 = 1069"
  unfolding ts_field_map_slices_7_def by (simp cong: designators_weak)

lemma field_slices_8: "increasing_from 1069 ts_field_map_slices_8 \<and> after_designators 1069 ts_field_map_slices_8 = 1219"
  unfolding ts_field_map_slices_8_def by (simp cong: designators_weak)

lemma field_slices_9: "increasing_from 1219 ts_field_map_slices_9 \<and> after_designators 1219 ts_field_map_slices_9 = 1369"
  unfolding ts_field_map_slices_9_def by (simp cong: designators_weak)

lemma field_slices_10: "increasing_from 1369 ts_field_map_slices_10 \<and> after_designators 1369 ts_field_map_slices_10 = 1519"
  unfolding ts_field_map_slices_10_def by (simp cong: designators_weak)

lemma field_slices_11: "increasing_from 1519 ts_field_map_slices_11 \<and> after_designators 1519 ts_field_map_slices_11 = 1669"
  unfolding ts_field_map_slices_11_def by (simp cong: designators_weak)

lemma field_slices_12: "increasing_from 1669 ts_field_map_slices_12 \<and> after_designators 1669 ts_field_map_slices_12 = 1819"
  unfolding ts_field_map_slices_12_def by (simp cong: designators_weak)

lemma field_slices_13: "increasing_from 1819 ts_field_map_slices_13 \<and> after_designators 1819 ts_field_map_slices_13 = 1969"
  unfolding ts_field_map_slices_13_def by (simp cong: designators_weak)

lemma field_slices_14: "increasing_from 1969 ts_field_map_slices_14 \<and> after_designators 1969 ts_field_map_slices_14 = 2119"
  unfolding ts_field_map_slices_14_def by (simp cong: designators_weak)

lemma field_slices_15: "increasing_from 2119 ts_field_map_slices_15 \<and> after_designators 2119 ts_field_map_slices_15 = 2269"
  unfolding ts_field_map_slices_15_def by (simp cong: designators_weak)

lemma field_slices_16: "increasing_from 2269 ts_field_map_slices_16 \<and> after_designators 2269 ts_field_map_slices_16 = 2419"
  unfolding ts_field_map_slices_16_def by (simp cong: designators_weak)

lemma field_slices_17: "increasing_from 2419 ts_field_map_slices_17 \<and> after_designators 2419 ts_field_map_slices_17 = 2569"
  unfolding ts_field_map_slices_17_def by (simp cong: designators_weak)

lemma field_slices_18: "increasing_from 2569 ts_field_map_slices_18 \<and> after_designators 2569 ts_field_map_slices_18 = 2719"
  unfolding ts_field_map_slices_18_def by (simp cong: designators_weak)

lemma field_slices_19: "increasing_from 2719 ts_field_map_slices_19 \<and> after_designators 2719 ts_field_map_slices_19 = 2855"
  unfolding ts_field_map_slices_19_def by (simp cong: designators_weak)

lemma field_slices_increasing:
  "increasing_from 0 field_slice_entries \<and> after_designators 0 field_slice_entries = 2855"
  by (simp add: field_slice_entries_def increasing_append after_append
      field_slices_1 field_slices_2 field_slices_3 field_slices_4 field_slices_5 field_slices_6
      field_slices_7 field_slices_8 field_slices_9 field_slices_10 field_slices_11 field_slices_12
      field_slices_13 field_slices_14 field_slices_15 field_slices_16 field_slices_17
      field_slices_18 field_slices_19)

interpretation slices: designated_table PRODUCTION_ID_COUNT "Slice 0 0" field_slice_entries
    ts_field_map_slices
  using field_slices_increasing
  by unfold_locales (simp_all add: ts_field_map_slices_def PRODUCTION_ID_COUNT_def)

lemma field_slices_ok_1: "list_all (\<lambda>(p, s). slice_ok s) ts_field_map_slices_1"
  unfolding ts_field_map_slices_1_def by (simp add: slice_ok_empty del: One_nat_def cong: list_all_weak)

lemma field_slices_ok_2: "list_all (\<lambda>(p, s). slice_ok s) ts_field_map_slices_2"
  unfolding ts_field_map_slices_2_def by (simp add: slice_ok_empty del: One_nat_def cong: list_all_weak)

lemma field_slices_ok_3: "list_all (\<lambda>(p, s). slice_ok s) ts_field_map_slices_3"
  unfolding ts_field_map_slices_3_def by (simp add: slice_ok_empty del: One_nat_def cong: list_all_weak)

lemma field_slices_ok_4: "list_all (\<lambda>(p, s). slice_ok s) ts_field_map_slices_4"
  unfolding ts_field_map_slices_4_def by (simp add: slice_ok_empty del: One_nat_def cong: list_all_weak)

lemma field_slices_ok_5: "list_all (\<lambda>(p, s). slice_ok s) ts_field_map_slices_5"
  unfolding ts_field_map_slices_5_def by (simp add: slice_ok_empty del: One_nat_def cong: list_all_weak)

lemma field_slices_ok_6: "list_all (\<lambda>(p, s). slice_ok s) ts_field_map_slices_6"
  unfolding ts_field_map_slices_6_def by (simp add: slice_ok_empty del: One_nat_def cong: list_all_weak)

lemma field_slices_ok_7: "list_all (\<lambda>(p, s). slice_ok s) ts_field_map_slices_7"
  unfolding ts_field_map_slices_7_def by (simp add: slice_ok_empty del: One_nat_def cong: list_all_weak)

lemma field_slices_ok_8: "list_all (\<lambda>(p, s). slice_ok s) ts_field_map_slices_8"
  unfolding ts_field_map_slices_8_def by (simp add: slice_ok_empty del: One_nat_def cong: list_all_weak)

lemma field_slices_ok_9: "list_all (\<lambda>(p, s). slice_ok s) ts_field_map_slices_9"
  unfolding ts_field_map_slices_9_def by (simp add: slice_ok_empty del: One_nat_def cong: list_all_weak)

lemma field_slices_ok_10: "list_all (\<lambda>(p, s). slice_ok s) ts_field_map_slices_10"
  unfolding ts_field_map_slices_10_def by (simp add: slice_ok_empty del: One_nat_def cong: list_all_weak)

lemma field_slices_ok_11: "list_all (\<lambda>(p, s). slice_ok s) ts_field_map_slices_11"
  unfolding ts_field_map_slices_11_def by (simp add: slice_ok_empty del: One_nat_def cong: list_all_weak)

lemma field_slices_ok_12: "list_all (\<lambda>(p, s). slice_ok s) ts_field_map_slices_12"
  unfolding ts_field_map_slices_12_def by (simp add: slice_ok_empty del: One_nat_def cong: list_all_weak)

lemma field_slices_ok_13: "list_all (\<lambda>(p, s). slice_ok s) ts_field_map_slices_13"
  unfolding ts_field_map_slices_13_def by (simp add: slice_ok_empty del: One_nat_def cong: list_all_weak)

lemma field_slices_ok_14: "list_all (\<lambda>(p, s). slice_ok s) ts_field_map_slices_14"
  unfolding ts_field_map_slices_14_def by (simp add: slice_ok_empty del: One_nat_def cong: list_all_weak)

lemma field_slices_ok_15: "list_all (\<lambda>(p, s). slice_ok s) ts_field_map_slices_15"
  unfolding ts_field_map_slices_15_def by (simp add: slice_ok_empty del: One_nat_def cong: list_all_weak)

lemma field_slices_ok_16: "list_all (\<lambda>(p, s). slice_ok s) ts_field_map_slices_16"
  unfolding ts_field_map_slices_16_def by (simp add: slice_ok_empty del: One_nat_def cong: list_all_weak)

lemma field_slices_ok_17: "list_all (\<lambda>(p, s). slice_ok s) ts_field_map_slices_17"
  unfolding ts_field_map_slices_17_def by (simp add: slice_ok_empty del: One_nat_def cong: list_all_weak)

lemma field_slices_ok_18: "list_all (\<lambda>(p, s). slice_ok s) ts_field_map_slices_18"
  unfolding ts_field_map_slices_18_def by (simp add: slice_ok_empty del: One_nat_def cong: list_all_weak)

lemma field_slices_ok_19: "list_all (\<lambda>(p, s). slice_ok s) ts_field_map_slices_19"
  unfolding ts_field_map_slices_19_def by (simp add: slice_ok_empty del: One_nat_def cong: list_all_weak)

lemma field_slices_ok: "list_all (\<lambda>(p, s). slice_ok s) field_slice_entries"
  by (simp add: field_slice_entries_def
      field_slices_ok_1 field_slices_ok_2 field_slices_ok_3 field_slices_ok_4 field_slices_ok_5
      field_slices_ok_6 field_slices_ok_7 field_slices_ok_8 field_slices_ok_9 field_slices_ok_10
      field_slices_ok_11 field_slices_ok_12 field_slices_ok_13 field_slices_ok_14
      field_slices_ok_15 field_slices_ok_16 field_slices_ok_17 field_slices_ok_18
      field_slices_ok_19)

definition production_fields :: "nat \<Rightarrow> TSFieldMapEntry list" where
  "production_fields p = slice_of ts_field_map_entries (ts_field_map_slices ! p)"

lemma production_slice_ok:
  assumes "p < PRODUCTION_ID_COUNT"
  shows "slice_ok (ts_field_map_slices ! p)"
  using slices.table_default[of "\<lambda>p. slice_ok"] slice_ok_empty field_slices_ok assms by blast

text \<open>
  C21. For each of the 2855 kinds of productions the slice of the field map lies in the table, so that
  no read of it leaves the array; its fields are ones of the language and its children ones a
  production can have; and its entries are in the order of the fields: a reader that skips the smaller
  fields and takes what follows finds all children of a field, from the first to the last, each once.
\<close>

theorem production_fields_found:
  assumes "p < PRODUCTION_ID_COUNT"
  shows "slice_index (ts_field_map_slices ! p) + slice_length (ts_field_map_slices ! p)
      \<le> length ts_field_map_entries \<and>
    list_all (\<lambda>e. 0 < field_id e \<and> field_id e \<le> FIELD_COUNT \<and>
      child_index e < MAX_ALIAS_SEQUENCE_LENGTH) (production_fields p) \<and>
    map child_index (field_range x (production_fields p)) = children_of_field x (production_fields p) \<and>
    sorted_wrt (<) (children_of_field x (production_fields p))"
proof -
  note ok = production_slice_ok[OF assms, unfolded slice_ok_def, folded production_fields_def]
  then have sorted: "sorted_wrt entry_before (production_fields p)"
    using entries_sorted by blast
  have "list_all (\<lambda>e. 0 < field_id e \<and> field_id e \<le> FIELD_COUNT \<and>
      child_index e < MAX_ALIAS_SEQUENCE_LENGTH) (production_fields p)"
    using ok by (simp add: entries_ok_def entry_ok_def[abs_def])
  then show ?thesis
    using ok children_in_order[OF sorted] field_range_filter[OF sorted_fields[OF sorted]]
    by (simp add: children_of_field_def)
qed

theorem production_fields_found_witness:
  "map child_index (field_range field_rule (production_fields 14)) = [0, 1]"
proof -
  have "production_fields 14 = [Field field_rule 0 True, Field field_rule 1 True]"
  proof -
    have "ts_field_map_slices ! 14 = Slice 11 2"
      by (rule slices.table_at) (simp add: field_slice_entries_def ts_field_map_slices_1_def)
    moreover have "(11, [Field field_rule 0 True, Field field_rule 1 True]) \<in> set field_map_runs"
      by (simp add: field_map_runs_def ts_field_map_entries_1_def)
    ultimately show ?thesis
      unfolding production_fields_def by (simp add: field_map.table_slice)
  qed
  then show ?thesis
    using production_fields_found[of 14 field_rule]
    by (simp add: PRODUCTION_ID_COUNT_def children_of_field_def)
qed

section \<open>The names of the fields\<close>

definition field_name :: "TSFieldId \<Rightarrow> string" where
  "field_name x = the (ts_field_names ! x)"

lemma field_names_increasing:
  "increasing_from 0 ((0, None) # map (map_prod id Some) field_name_entries) \<and>
   after_designators 0 ((0, None) # map (map_prod id Some) field_name_entries) = 110"
  by (simp add: field_name_entries_def field_numbers)

interpretation field_names: designated_table 110 None
    "(0, None) # map (map_prod id Some) field_name_entries" ts_field_names
  using field_names_increasing
  by unfold_locales (simp_all add: ts_field_names_def designated_unsized)

lemma field_name_entry: "list_all (\<lambda>(x, n). field_name x = n) field_name_entries"
proof -
  have "field_name x = n" if "(x, n) \<in> set field_name_entries" for x n
    using field_names.table_at[of x "Some n"] that by (force simp: field_name_def)
  then show ?thesis
    by (auto simp: list_all_iff)
qed

lemmas field_name_values = field_name_entry [unfolded field_name_entries_def entry_simps]

definition fields :: "TSFieldId list" where
  "fields = map fst field_name_entries"

lemma fields_upt: "fields = [1..<110]"
proof -
  have "length field_name_entries = 109"
    by (simp add: field_name_entries_def)
  then have "0 # fields = [0..<110]"
    using increasing_dense[OF field_names.increasing] field_names_increasing
    by (simp add: fields_def)
  then show ?thesis
    by (simp add: upt_conv_Cons)
qed

lemma fields_sorted: "successively (\<lambda>x y. name_before (field_name x) (field_name y)) fields"
  by (simp add: fields_def field_name_entries_def field_name_values char_simps)

text \<open>
  C29. The names of the fields are in the order of \<open>strcmp\<close>, which the number of a field follows: of two
  fields the one with the smaller number has the smaller name, so that a search by name can stop at
  the first greater one, and no name stands for two fields. The entry 0 is no field.
\<close>

theorem field_names_ordered:
  "length ts_field_names = FIELD_COUNT + 1 \<and> ts_field_names ! 0 = None \<and>
   (\<forall>x y. 0 < x \<and> x < y \<and> y \<le> FIELD_COUNT \<longrightarrow> name_before (field_name x) (field_name y))"
proof -
  have "sorted_wrt (\<lambda>x y. name_before (field_name x) (field_name y)) [1..<110]"
    using fields_sorted unfolding fields_upt name_before_less
    by (subst (asm) successively_conv_sorted_wrt) (auto intro: transpI)
  note sorted = this
  have "name_before (field_name x) (field_name y)" if "0 < x" "x < y" "y \<le> 109" for x y
    using that sorted_wrt_nth_less[OF sorted, of "x - 1" "y - 1"] by simp
  moreover have "ts_field_names ! 0 = None"
    using field_names.table_at[of 0 None] by simp
  ultimately show ?thesis
    using field_names.length_table by (simp add: FIELD_COUNT_def)
qed

theorem field_names_ordered_witness:
  "name_before (field_name field_IQM) (field_name field_SUPER) \<and> field_IQM < field_SUPER"
proof -
  have "0 < field_IQM" "field_IQM < field_SUPER" "field_SUPER \<le> FIELD_COUNT"
    by (simp_all add: field_IQM_def field_SUPER_def FIELD_COUNT_def)
  then show ?thesis
    using field_names_ordered by blast
qed

section \<open>Aliases\<close>

lemma alias_designators:
  "increasing_from 0 (map (map_prod id alias_row) alias_entries) \<and>
   after_designators 0 (map (map_prod id alias_row) alias_entries) \<le> PRODUCTION_ID_COUNT"
  unfolding increasing_map by (simp add: alias_entries_def PRODUCTION_ID_COUNT_def)

interpretation aliases: designated_table PRODUCTION_ID_COUNT "alias_row []"
    "map (map_prod id alias_row) alias_entries" ts_alias_sequences
  using alias_designators by unfold_locales (simp_all add: ts_alias_sequences_def)

definition alias_ok :: "TSSymbol \<Rightarrow> bool" where
  "alias_ok a \<longleftrightarrow>
     (if a < SYMBOL_COUNT then False
      else a < SYMBOL_COUNT + ALIAS_COUNT \<and> visible (metadata a) \<and> named (metadata a))"

definition alias_row_ok :: "(nat \<times> TSSymbol) list \<Rightarrow> bool" where
  "alias_row_ok as \<longleftrightarrow>
     distinct (map fst as) \<and> list_all (\<lambda>(i, a). a = 0 \<or> alias_ok a) as"

lemma alias_symbols:
  "list_all alias_ok [alias_sym_deref_sign, alias_sym_field, alias_sym_fold_and, alias_sym_fold_div,
     alias_sym_fold_eq, alias_sym_fold_ge, alias_sym_fold_gt, alias_sym_fold_le, alias_sym_fold_lt,
     alias_sym_fold_minus, alias_sym_fold_mod, alias_sym_fold_mul, alias_sym_fold_ne,
     alias_sym_fold_plus, alias_sym_fold_power, alias_sym_fold_xor, alias_sym_internal,
     alias_sym_partly, alias_sym_ref_to, alias_sym_target]"
proof -
  have "list_all (\<lambda>a. 584 \<le> a \<and> a < 604) [alias_sym_deref_sign, alias_sym_field,
     alias_sym_fold_and, alias_sym_fold_div,
     alias_sym_fold_eq, alias_sym_fold_ge, alias_sym_fold_gt, alias_sym_fold_le, alias_sym_fold_lt,
     alias_sym_fold_minus, alias_sym_fold_mod, alias_sym_fold_mul, alias_sym_fold_ne,
     alias_sym_fold_plus, alias_sym_fold_power, alias_sym_fold_xor, alias_sym_internal,
     alias_sym_partly, alias_sym_ref_to, alias_sym_target]"
    by (simp add: grammar_symbol_numbers)
  then show ?thesis
    by (simp add: alias_ok_def SYMBOL_COUNT_def ALIAS_COUNT_def)
qed

lemmas alias_symbols_ok = alias_symbols [unfolded list_all_equations simp_thms]

lemma alias_rows_ok: "list_all (\<lambda>(p, as). alias_row_ok as) alias_entries"
  by (simp add: alias_entries_def alias_row_ok_def alias_symbols_ok)

lemma alias_row_entry:
  assumes "alias_row_ok as" and "i < MAX_ALIAS_SEQUENCE_LENGTH"
  shows "alias_row as ! i = 0 \<or> alias_ok (alias_row as ! i)"
  using assms
  by (auto simp: alias_row_def alias_row_ok_def nth_designated list_all_iff
      split: option.split dest: map_of_SomeD)

lemma alias_table_ok:
  "list_all (\<lambda>(p, row). \<forall>i < MAX_ALIAS_SEQUENCE_LENGTH. row ! i = 0 \<or> alias_ok (row ! i))
     (map (map_prod id alias_row) alias_entries)"
  using alias_rows_ok alias_row_entry by (fastforce simp: list_all_iff)

text \<open>
  C30. Every alias that a production gives one of its children is a symbol made for aliases, shown in
  the tree as a named node.
\<close>

theorem aliases_are_named_nodes:
  assumes "p < PRODUCTION_ID_COUNT" and "i < MAX_ALIAS_SEQUENCE_LENGTH"
    and "ts_alias_sequences ! p ! i = a" and "a \<noteq> 0"
  shows "SYMBOL_COUNT \<le> a \<and> a < SYMBOL_COUNT + ALIAS_COUNT \<and> visible (metadata a) \<and> named (metadata a)"
proof -
  have "alias_row_ok []"
    by (simp add: alias_row_ok_def)
  then have "\<forall>i < MAX_ALIAS_SEQUENCE_LENGTH. ts_alias_sequences ! p ! i = 0 \<or>
      alias_ok (ts_alias_sequences ! p ! i)"
    using aliases.table_default[of "\<lambda>p row. \<forall>i < MAX_ALIAS_SEQUENCE_LENGTH. row ! i = 0 \<or> alias_ok (row ! i)"]
      alias_row_entry alias_table_ok assms(1) by blast
  then show ?thesis
    using assms by (auto simp: alias_ok_def split: if_splits)
qed

theorem aliases_are_named_nodes_witness:
  "ts_alias_sequences ! 44 ! 2 = alias_sym_partly \<and> named (metadata alias_sym_partly)"
proof -
  have "ts_alias_sequences ! 44 = alias_row [(2, alias_sym_partly)]"
    by (rule aliases.table_at) (simp add: alias_entries_def)
  then have at: "ts_alias_sequences ! 44 ! 2 = alias_sym_partly"
    by (simp add: alias_row_def nth_designated MAX_ALIAS_SEQUENCE_LENGTH_def)
  moreover have "alias_sym_partly \<noteq> 0"
    by (simp add: grammar_symbol_numbers)
  ultimately show ?thesis
    using aliases_are_named_nodes[OF _ _ at]
    by (simp add: PRODUCTION_ID_COUNT_def MAX_ALIAS_SEQUENCE_LENGTH_def)
qed

end
