(* ===== verification/Parse_Actions.thy ===== *)
theory Parse_Actions
  imports Production_Fields Primary_States
begin

text \<open>
  The actions of the LR parser, from \<open>src/crates/tree-sitter/src/tree_sitter/parser.h\<close>, and what a group
  of \<open>ts_parse_actions\<close> has to be: a head that counts the actions after it, with states to shift to that
  the table has, and reductions of non-terminals that have all the children their production names.
\<close>

section \<open>Actions and entries\<close>

text \<open>The union \<open>TSParseAction\<close> is read by its \<open>type\<close>: a constructor for each of the four.\<close>

datatype TSParseAction =
    TSParseActionTypeShift (shift_state: TSStateId) (extra: bool) (repetition: bool)
  | TSParseActionTypeReduce (child_count: nat) (reduce_symbol: TSSymbol) (dynamic_precedence: int)
      (production_id: nat)
  | TSParseActionTypeAccept
  | TSParseActionTypeRecover

datatype TSParseActionEntry =
    Entry (entry_count: nat) (reusable: bool)
  | Action (action: TSParseAction)

definition SHIFT :: "TSStateId \<Rightarrow> TSParseActionEntry" where
  "SHIFT state_value = Action (TSParseActionTypeShift state_value False False)"

definition SHIFT_REPEAT :: "TSStateId \<Rightarrow> TSParseActionEntry" where
  "SHIFT_REPEAT state_value = Action (TSParseActionTypeShift state_value False True)"

definition SHIFT_EXTRA :: TSParseActionEntry where
  "SHIFT_EXTRA = Action (TSParseActionTypeShift 0 True False)"

definition REDUCE :: "TSSymbol \<Rightarrow> nat \<Rightarrow> int \<Rightarrow> nat \<Rightarrow> TSParseActionEntry" where
  "REDUCE y children precedence prod_id =
     Action (TSParseActionTypeReduce children y precedence prod_id)"

definition RECOVER :: TSParseActionEntry where
  "RECOVER = Action TSParseActionTypeRecover"

definition ACCEPT_INPUT :: TSParseActionEntry where
  "ACCEPT_INPUT = Action TSParseActionTypeAccept"

lemmas action_macros =
  SHIFT_def SHIFT_REPEAT_def SHIFT_EXTRA_def REDUCE_def RECOVER_def ACCEPT_INPUT_def

section \<open>Groups of actions\<close>

text \<open>A production names no child that a reduction of \<open>c\<close> children does not have.\<close>

definition children_within :: "nat \<Rightarrow> nat \<Rightarrow> bool" where
  "children_within c p \<longleftrightarrow>
     (\<forall>e \<in> set (production_fields p). child_index e < c) \<and>
     (\<forall>i < MAX_ALIAS_SEQUENCE_LENGTH. ts_alias_sequences ! p ! i \<noteq> 0 \<longrightarrow> i < c)"

definition reduce_ok :: "nat \<Rightarrow> nat \<Rightarrow> bool" where
  "reduce_ok c p \<longleftrightarrow>
     c \<le> MAX_ALIAS_SEQUENCE_LENGTH \<and> p < PRODUCTION_ID_COUNT \<and> children_within c p"

definition reduce_symbol_ok :: "TSSymbol \<Rightarrow> bool" where
  "reduce_symbol_ok y \<longleftrightarrow> TOKEN_COUNT \<le> y \<and> y < SYMBOL_COUNT"

primrec action_ok :: "TSParseAction \<Rightarrow> bool" where
  "action_ok (TSParseActionTypeShift s e r) \<longleftrightarrow> s < STATE_COUNT"
| "action_ok (TSParseActionTypeReduce c y d p) \<longleftrightarrow> reduce_symbol_ok y \<and> reduce_ok c p"
| "action_ok TSParseActionTypeAccept \<longleftrightarrow> True"
| "action_ok TSParseActionTypeRecover \<longleftrightarrow> True"

primrec entry_action_ok :: "TSParseActionEntry \<Rightarrow> bool" where
  "entry_action_ok (Entry n r) \<longleftrightarrow> False"
| "entry_action_ok (Action a) \<longleftrightarrow> action_ok a"

fun group_ok :: "TSParseActionEntry list \<Rightarrow> bool" where
  "group_ok (Entry n r # as) \<longleftrightarrow> length as = n \<and> list_all entry_action_ok as"
| "group_ok _ \<longleftrightarrow> False"

lemma group_ok_simps:
  "group_ok [Entry 0 r]"
  "group_ok [Entry 1 r, a] \<longleftrightarrow> entry_action_ok a"
  "group_ok [Entry 2 r, a, b] \<longleftrightarrow> entry_action_ok a \<and> entry_action_ok b"
  by simp_all

lemma entry_action_ok_simps:
  "entry_action_ok (SHIFT s) \<longleftrightarrow> s < 10545" "entry_action_ok (SHIFT_REPEAT s) \<longleftrightarrow> s < 10545"
  "entry_action_ok SHIFT_EXTRA" "entry_action_ok RECOVER" "entry_action_ok ACCEPT_INPUT"
  "entry_action_ok (REDUCE y c d p) \<longleftrightarrow> reduce_symbol_ok y \<and> reduce_ok c p"
  by (simp_all add: action_macros STATE_COUNT_def)

lemma group_okE:
  assumes "group_ok es"
  obtains n r as where "es = Entry n r # map Action as" "length as = n" "list_all action_ok as"
proof (cases es rule: group_ok.cases)
  case (1 n r us)
  with assms have us: "length us = n" "list_all entry_action_ok us"
    by simp_all
  from us(2) have "us = map Action (map action us) \<and> list_all action_ok (map action us)"
  proof (induction us)
    case (Cons u us)
    then show ?case by (cases u) simp_all
  qed simp
  with 1 us(1) that[of n r "map action us"] show ?thesis
    by simp
qed (use assms in simp_all)

text \<open>The symbols that are reduced.\<close>

definition reduced_symbols :: "TSSymbol list" where
  "reduced_symbols =
    [sym_source_file, sym_ERR_implements_before_extends, sym_ERR_implements_multiple_times,
     sym_ERR_extends_multiple_times, sym_ERR_doubled_qualifier, sym_ERR_doubled_retain,
     sym_ERR_doubled_non_retain, sym_ERR_doubled_constant, sym_ERR_doubled_global_qualifier,
     sym_ERR_variable_with_no_spec, sym_ERR_config_entry_with_no_spec,
     sym_ERR_invalid_edge_qualifier, sym_ERR_empty_right_hand_assignment, sym_ERR_assign_func_call,
     sym_ERR_missing_dot_in_assignment, sym_ERR_missing_equal_in_assignment,
     sym_ERR_missing_dot_in_for_control, sym_ERR_missing_equal_in_for_control,
     sym_ERR_assign_in_condition, sym_ERR_output_assign_in_assignment,
     sym_ERR_output_assign_in_for_control, sym_ERR_unexpected_this_in_path,
     sym_ERR_unexpected_super_in_path, sym_ERR_func_call_in_init,
     sym_ERR_class_variables_after_method, sym_ERR_fb_variables_after_method,
     sym_ERR_program_not_allowed_in_namespace, sym_ERR_config_not_allowed_in_namespace,
     sym_ERR_single_after_interval, sym_ERR_interval_after_priority, sym_ERR_single_after_priorty,
     sym_ERR_var_in_out_not_allowed, sym_ERR_var_temp_not_allowed, sym_ERR_variadic_fb_input,
     sym_ERR_var_access_not_allowed, sym_ERR_var_config_not_allowed,
     sym_ERR_var_external_not_allowed, sym_ERR_var_global_not_allowed,
     sym_ERR_task_or_program_outside_resource, sym_ERR_var_not_allowed,
     sym_ERR_access_spec_in_method_prototype, sym_ERR_method_decl_in_body, sym_extern_pragma,
     sym_extern_param_list, sym_extern_result, sym_wasm_pragma, sym_warn_pragma,
     sym_warn_pragma_level, sym_allow_pragma, sym_test_pragma, sym_once_pragma,
     sym_must_call_pragma, sym_export_pragma, sym_pou_pragma, sym_constant, sym_numeric_literal,
     sym_int_literal, sym_int_kind, sym_signed_int, sym_real_literal, sym_signed_real_value,
     sym_bool_literal, sym_bool_literal_with_string, sym_bool_literal_with_numeric,
     sym_char_literal, sym_char_str, sym_time_literal, sym_duration, sym_time, sym_ltime,
     sym_time_of_day, sym_tod, sym_ltod, sym_date, sym_short_date, sym_long_date, sym_date_literal,
     sym_date_and_time, sym_short_date_and_time, sym_long_date_and_time, sym_date_and_daytime,
     sym_data_type_access, sym__elem_type_name, sym_numeric_type_name, sym_int_type_name,
     sym_sign_int_type_name, sym_unsign_int_type_name, sym_real_type_name, sym_string_type_name,
     sym_string_name, sym_char_name, sym_bit_str_type_name, sym_multibits_type_name,
     sym_data_type_decl, sym_type_decl, sym_simple_type_spec, sym_simple_type_init,
     sym_subrange_type_spec, sym_subrange, sym_enum_type_spec, sym_enum_spec, sym_enum_value_spec,
     sym_enum_value, sym_array_type_spec, sym_array_type_init, sym_ranges, sym_struct_type_spec,
     sym_struct_type_init, sym_init_elem, sym_array_init, sym_element_at, sym_array_index_elem,
     sym_array_values, sym_repeat_values, sym_struct_init, sym_struct_elem, sym_struct_elem_decl,
     sym_struct_elem_decl_attributes, sym_relative_located_at, sym_relative_direct_variable,
     sym_relative_offset, sym_direct_variable, sym_offset, sym_ref_type_spec, sym_ref_spec,
     sym_ref_value, sym_ref_addr, sym_deref_expression, sym_variable, sym_var_access,
     sym_input_decls, sym_input_var, sym__input_var_kind, sym_variadic_decl, sym_edge_decl,
     sym_var_decl_init, sym_var_decl, sym_variable_list, sym_array_conformand,
     sym_conformand_dimension, sym_output_decls, sym_output_var, sym__output_var_kind,
     sym_in_out_decls, sym_in_out_var, sym__in_out_var_kind, sym_var_decls, sym_retain_var_decls,
     sym_var_decl_init_list, sym_loc_var_decl, sym_temp_var_decls, sym_temp_var, sym__temp_var_kind,
     sym_external_var_decls, sym_external_decl, sym__external_var_kind, sym_global_var_decls,
     sym_global_var_decl, sym__global_var_kind, sym_global_var_spec, sym_loc_var_spec_init,
     sym_located_at, sym_loc_partly_var_decl, sym_loc_partly_var, sym_var_spec, sym_func_decl,
     sym__func_variables, sym_func_body, sym_fb_decl, sym__fb_variables, sym_fb_input_decls,
     sym_fb_input_var, sym__fb_input_var_kind, sym_fb_output_decls, sym_fb_output_var,
     sym__fb_output_var_kind, sym_no_retain_var_decls, sym_fb_body, sym_method_decl,
     sym__method_decl_variables, sym_class_decl, sym__class_variables, sym_interface_decl,
     sym_method_prototype, sym__method_prot_variables, sym_interface_name_list, sym_access_spec,
     sym_prog_decl, sym_prog_access_decls, sym_prog_access_decl, sym_SFC, sym_SFC_network,
     sym_initial_step, sym_step, sym_step_name, sym_action_association, sym_action_name,
     sym_action_qualifier, sym_action_time, sym_transition, sym_transition_name, sym_steps,
     sym_transition_cond, sym_action, sym_config_decl, sym__config_variables, sym_resource_decl,
     sym_single_resource_decl, sym_access_decls, sym_access_decl, sym_access_path,
     sym_access_direction, sym_task_config, sym_task_init, sym_data_source, sym_prog_config,
     sym_prog_conf_elems, sym_prog_conf_elem, sym_fb_task, sym_prog_cnxn, sym_prog_data_source,
     sym_data_sink, sym_config_init, sym_config_inst_init, sym_namespace_decl,
     sym_namespace_elements, sym_namespace_h_name, sym_using_directive, sym__expression,
     sym_fold_expression, sym_pack_element, sym_fold_operator, sym__primary_expression,
     sym_parenthesized_expression, sym_boolean_operator, sym_or_operator, sym_xor_operator,
     sym_and_operator, sym_comparison_operator, sym_eq_operator, sym_ord_operator, sym_eq, sym_ord,
     sym_add_operator, sym_add, sym_mult_operator, sym_mult, sym_power_operator, sym_unary_operator,
     sym_unary, sym_constant_expr, sym_variable_access, sym_multibit_part_access, sym_multibit,
     sym_func_call, sym_stmt_list, sym__stmt, sym_assign, sym_assignment, sym_param_assign,
     sym_param_assign_input, sym_param_assign_output, sym_if_stmt, sym_else_if_stmt, sym_case_stmt,
     sym_case_selection, sym_case_body, sym_case_list, sym_case_list_elem, sym_for_stmt,
     sym_for_list, sym_while_stmt, sym_repeat_stmt, sym_raise_stmt, sym_try_stmt, sym_catch_clause,
     sym_finally_clause, sym_ERR_clause_outside_try, sym_ERR_end_try_spelling, sym_namespace_access,
     sym_scoped_identifier, sym__path, sym_begin_path_expression, sym_invocation,
     sym_any_invocation, sym_any_invocation_kind, sym_this_invocation, sym_super_invocation,
     sym_super_body_invocation, sym_path_expression, sym_field_expression, sym_index_expression,
     sym_index_value, sym_IQM, sym_ladder_diagram, sym_fb_diagram, aux_sym_source_file_repeat1,
     aux_sym_ERR_doubled_qualifier_repeat1, aux_sym_ERR_doubled_retain_repeat1,
     aux_sym_ERR_class_variables_after_method_repeat1,
     aux_sym_ERR_fb_variables_after_method_repeat1, aux_sym_extern_param_list_repeat1,
     aux_sym_allow_pragma_repeat1, aux_sym_data_type_decl_repeat1, aux_sym_enum_spec_repeat1,
     aux_sym_array_type_init_repeat1, aux_sym_ranges_repeat1, aux_sym_struct_type_spec_repeat1,
     aux_sym_struct_type_init_repeat1, aux_sym_struct_init_repeat1, aux_sym_relative_offset_repeat1,
     aux_sym_ref_type_spec_repeat1, aux_sym_deref_expression_repeat1, aux_sym_input_decls_repeat1,
     aux_sym_variable_list_repeat1, aux_sym_array_conformand_repeat1, aux_sym_output_decls_repeat1,
     aux_sym_in_out_decls_repeat1, aux_sym_var_decls_repeat1, aux_sym_temp_var_decls_repeat1,
     aux_sym_external_var_decls_repeat1, aux_sym_global_var_decls_repeat1,
     aux_sym_global_var_spec_repeat1, aux_sym_loc_partly_var_decl_repeat1,
     aux_sym_func_decl_repeat1, aux_sym_func_decl_repeat2, aux_sym_func_decl_repeat3,
     aux_sym_fb_decl_repeat1, aux_sym_fb_decl_repeat2, aux_sym_fb_decl_repeat3,
     aux_sym_fb_input_decls_repeat1, aux_sym_fb_output_decls_repeat1, aux_sym_method_decl_repeat1,
     aux_sym_interface_decl_repeat1, aux_sym_method_prototype_repeat1,
     aux_sym_interface_name_list_repeat1, aux_sym_prog_decl_repeat1,
     aux_sym_prog_access_decls_repeat1, aux_sym_SFC_repeat1, aux_sym_SFC_network_repeat1,
     aux_sym_initial_step_repeat1, aux_sym_action_association_repeat1, aux_sym_steps_repeat1,
     aux_sym_config_decl_repeat1, aux_sym_resource_decl_repeat1, aux_sym_access_decls_repeat1,
     aux_sym_prog_conf_elems_repeat1, aux_sym_config_init_repeat1,
     aux_sym_namespace_elements_repeat1, aux_sym_namespace_h_name_repeat1,
     aux_sym_using_directive_repeat1, aux_sym_func_call_repeat1, aux_sym_stmt_list_repeat1,
     aux_sym_if_stmt_repeat1, aux_sym_case_stmt_repeat1, aux_sym_case_list_repeat1,
     aux_sym_try_stmt_repeat1, aux_sym_index_value_repeat1, aux_sym_ladder_diagram_repeat1,
     aux_sym_fb_diagram_repeat1]"

lemma reduced_symbols_ok: "list_all reduce_symbol_ok reduced_symbols"
proof -
  have "list_all (\<lambda>y. 222 \<le> y \<and> y < 584) reduced_symbols"
    unfolding reduced_symbols_def by (simp add: grammar_symbol_numbers cong: list_all_weak)
  then show ?thesis
    by (simp add: list_all_iff reduce_symbol_ok_def TOKEN_COUNT_def SYMBOL_COUNT_def)
qed

lemmas reduced_symbol_ok [simp] = reduced_symbols_ok [unfolded reduced_symbols_def entry_simps]

end
