(* ===== verification/Reduce_Counts.thy ===== *)
theory Reduce_Counts
  imports Parse_Actions
begin

text \<open>
  The numbers of children that the reductions of each production have in \<open>ts_parse_actions\<close>, and the
  check that the production names no child beyond.
\<close>

section \<open>The children counted for each production\<close>

definition reduce_counts_1 :: "(nat \<times> nat list) list" where
  "reduce_counts_1 =
    [(2, [1]), (3, [1]), (4, [1, 2]), (5, [2, 3, 4, 5, 6, 7]), (7, [1]), (8, [1, 2]), (9, [1]),
     (10, [1]), (11, [1]), (12, [1]), (13, [4]), (14, [2]), (16, [3]), (17, [1, 2]),
     (18, [1, 2, 3]), (19, [1]), (20, [1, 3]), (21, [2]), (22, [2]), (23, [4]),
     (25, [4, 5, 6, 7, 8]), (26, [4, 5]), (27, [4]), (28, [4, 5, 6, 7, 8]), (29, [4, 5]),
     (30, [4, 5, 6, 7, 8]), (31, [4, 5]), (32, [4]), (33, [4]), (34, [4]), (35, [2]), (36, [4]),
     (37, [4]), (38, [4, 5, 6, 7, 8]), (39, [5]), (40, [5]), (41, [4]), (42, [2]), (43, [5]),
     (44, [3]), (45, [3]), (46, [3, 4, 5]), (47, [2]), (48, [2]), (49, [3, 4, 5]), (50, [2]),
     (51, [2, 3, 4, 5]), (52, [2]), (53, [3, 4, 5]), (54, [2]), (55, [2]), (56, [2]), (57, [2]),
     (58, [2, 3]), (59, [3]), (60, [2]), (61, [3]), (62, [3]), (63, [5]), (64, [5, 6]), (65, [5]),
     (66, [5]), (67, [5]), (68, [5]), (69, [5]), (70, [5, 6]), (71, [5, 6]), (72, [5, 6]),
     (73, [5, 6, 7]), (74, [5, 6, 7, 8]), (75, [5]), (76, [5, 6]), (77, [5, 6]), (78, [5, 6]),
     (79, [5, 6]), (80, [5, 6]), (81, [5]), (82, [5, 6]), (83, [5, 6, 7, 8, 9]), (84, [5, 6]),
     (85, [5, 6]), (86, [5, 6]), (87, [5, 6]), (88, [5]), (89, [5]), (90, [5]), (91, [3]),
     (92, [5]), (93, [5]), (94, [5]), (95, [5]), (96, [5, 6]), (97, [5, 6]), (98, [5]),
     (99, [5, 6, 7, 8, 9]), (100, [5, 6]), (101, [5]), (102, [3, 4]), (103, [1]), (104, [3, 4, 5]),
     (105, [3]), (106, [6]), (107, [6]), (108, [6]), (109, [4]), (110, [2]), (111, [4, 5, 6]),
     (112, [3]), (113, [2]), (114, [4]), (115, [4]), (116, [3]), (131, [3]), (132, [4, 5]),
     (133, [3]), (134, [3]), (135, [3]), (136, [3]), (137, [3]), (138, [3]), (139, [4, 5]),
     (140, [4, 5]), (141, [4]), (142, [4]), (143, [4]), (144, [4]), (145, [4]), (146, [3]),
     (147, [4]), (148, [6]), (149, [6]), (150, [6]), (151, [6]), (152, [6]), (153, [6, 7, 8]),
     (154, [6, 7, 8, 9]), (155, [6]), (156, [6, 7]), (157, [6, 7]), (158, [6, 7]), (159, [6]),
     (160, [6, 7]), (161, [6]), (162, [6, 7]), (163, [6, 7]), (164, [6]), (165, [6]), (166, [6, 7]),
     (167, [6, 7]), (168, [6, 7])]"

definition reduce_counts_2 :: "(nat \<times> nat list) list" where
  "reduce_counts_2 =
    [(169, [6]), (170, [6, 7]), (171, [6, 7]), (172, [6, 7]), (173, [4, 5, 6]), (174, [4, 5, 6]),
     (175, [6, 7, 8]), (176, [6, 7, 8, 9]), (177, [6]), (178, [6]), (179, [6, 7]), (180, [6]),
     (181, [6, 7]), (182, [6, 7]), (183, [6, 7]), (184, [6, 7]), (185, [6, 7]), (186, [6]),
     (187, [6]), (188, [6]), (189, [6]), (190, [6, 7]), (191, [6]), (192, [6]), (193, [6, 7, 8]),
     (194, [6, 7, 8, 9]), (195, [6, 7]), (196, [6, 7]), (197, [6, 7]), (198, [6, 7]), (199, [6, 7]),
     (200, [6, 7]), (201, [6, 7]), (202, [6, 7]), (203, [6, 7]), (204, [6, 7, 8]),
     (205, [6, 7, 8, 9]), (206, [6, 7]), (207, [6, 7]), (208, [6, 7]), (209, [6]), (210, [4]),
     (211, [6]), (212, [4]), (213, [6]), (214, [6]), (215, [6]), (216, [6, 7]), (217, [6]),
     (218, [6]), (219, [6]), (220, [6]), (221, [6]), (222, [6, 7]), (223, [6, 7]), (224, [6, 7]),
     (225, [6, 7, 8]), (226, [6, 7, 8, 9]), (227, [6]), (228, [6, 7]), (229, [6, 7]), (230, [6, 7]),
     (231, [6, 7]), (232, [6, 7]), (233, [6]), (234, [6]), (235, [4]), (236, [4, 5]), (237, [2]),
     (238, [4]), (239, [7]), (240, [7]), (241, [7]), (242, [5]), (243, [5]), (244, [5]), (245, [3]),
     (246, [3]), (247, [3]), (248, [5]), (249, [5]), (250, [5]), (251, [5]), (252, [5]), (253, [5]),
     (254, [5]), (255, [5]), (256, [4]), (257, [5, 6]), (258, [5, 6]), (259, [2]), (260, [5, 6]),
     (261, [5]), (262, [5]), (263, [5]), (264, [4]), (265, [3]), (266, [5]), (267, [5]), (268, [5]),
     (269, [5]), (270, [7]), (271, [7]), (272, [7]), (273, [7]), (274, [7]), (275, [7, 8]),
     (276, [7, 8]), (277, [7, 8]), (278, [7]), (279, [7, 8]), (280, [7, 8]), (281, [7, 8]),
     (282, [7, 8, 9]), (283, [7, 8, 9, 10]), (284, [7]), (285, [7]), (286, [7, 8]), (287, [7]),
     (288, [7, 8]), (289, [7, 8]), (290, [7, 8]), (291, [7, 8]), (292, [7, 8]), (293, [7]),
     (294, [7]), (295, [7]), (296, [7]), (297, [7]), (298, [7, 8]), (299, [7]), (300, [7]),
     (301, [7]), (302, [7]), (303, [7, 8]), (304, [7]), (305, [7, 8]), (306, [7, 8]), (307, [7, 8]),
     (308, [7, 8]), (309, [7, 8]), (310, [7]), (311, [7, 8, 9]), (312, [7]), (313, [7]),
     (314, [7, 8]), (315, [7]), (316, [7, 8]), (317, [7, 8]), (318, [7, 8])]"

definition reduce_counts_3 :: "(nat \<times> nat list) list" where
  "reduce_counts_3 =
    [(319, [7, 8]), (320, [7, 8]), (321, [7]), (322, [7]), (323, [7, 8]), (324, [7, 8]),
     (325, [7, 8]), (326, [7]), (327, [7, 8]), (328, [7, 8]), (329, [7, 8]), (330, [7]), (331, [7]),
     (332, [7]), (333, [7]), (334, [7, 8]), (335, [7]), (336, [7, 8, 9]), (337, [7]), (338, [7]),
     (339, [7, 8]), (340, [7]), (341, [7, 8]), (342, [7, 8]), (343, [7, 8]), (344, [7, 8]),
     (345, [7, 8]), (346, [7]), (347, [7]), (348, [7]), (349, [7]), (350, [7]), (351, [7]),
     (352, [7, 8]), (353, [7, 8]), (354, [7, 8]), (355, [7, 8]), (356, [7, 8, 9]),
     (357, [7, 8, 9, 10]), (358, [7, 8]), (359, [7, 8]), (360, [7, 8]), (361, [7, 8, 9]),
     (362, [7, 8, 9, 10]), (363, [7, 8]), (364, [7, 8]), (365, [7, 8]), (366, [7, 8]),
     (367, [7, 8]), (368, [7, 8]), (369, [7, 8]), (370, [7, 8]), (371, [7, 8]), (372, [7, 8]),
     (373, [7, 8]), (374, [7, 8]), (375, [7, 8]), (376, [7, 8]), (377, [7, 8]), (378, [7, 8, 9]),
     (379, [7, 8, 9, 10]), (380, [7, 8]), (381, [7, 8]), (382, [7, 8]), (383, [7]), (384, [5]),
     (385, [5]), (386, [7]), (387, [5]), (388, [5]), (389, [5]), (390, [7]), (391, [7]), (392, [7]),
     (393, [7]), (394, [7]), (395, [7]), (396, [7]), (397, [7]), (398, [7, 8, 9]),
     (399, [7, 8, 9, 10]), (400, [7]), (401, [7, 8]), (402, [7, 8]), (403, [7, 8]), (404, [7]),
     (405, [7, 8]), (406, [7]), (407, [7, 8]), (408, [7, 8]), (409, [7]), (410, [7]), (411, [7, 8]),
     (412, [7, 8]), (413, [7, 8]), (414, [7]), (415, [7, 8]), (416, [7, 8]), (417, [7, 8]),
     (418, [7, 8, 9]), (419, [7, 8, 9, 10]), (420, [7]), (421, [7]), (422, [7, 8]), (423, [7]),
     (424, [7, 8]), (425, [7, 8]), (426, [7, 8]), (427, [7, 8]), (428, [7, 8]), (429, [7]),
     (430, [7]), (431, [7]), (432, [7]), (433, [7, 8]), (434, [7]), (435, [7]), (436, [3]),
     (437, [4]), (438, [4]), (439, [8]), (440, [1]), (441, [6]), (442, [6]), (443, [6]), (444, [6]),
     (445, [6]), (446, [6]), (447, [6]), (448, [6]), (449, [6]), (450, [6]), (451, [6]), (452, [6]),
     (453, [6]), (454, [6]), (455, [6]), (456, [6]), (457, [5]), (458, [5]), (459, [6]), (460, [3]),
     (461, [6, 7]), (462, [6]), (463, [3]), (464, [4]), (465, [6]), (466, [5]), (467, [4]),
     (468, [6])]"

definition reduce_counts_4 :: "(nat \<times> nat list) list" where
  "reduce_counts_4 =
    [(469, [6]), (470, [6]), (471, [6]), (472, [6]), (473, [6]), (474, [6]), (475, [6]), (476, [6]),
     (477, [8]), (478, [8]), (479, [8]), (480, [8]), (481, [8]), (482, [8, 9]), (483, [8]),
     (484, [8, 9]), (485, [8, 9]), (486, [8, 9]), (487, [8, 9]), (488, [8, 9]), (489, [8]),
     (490, [8, 9, 10]), (491, [8]), (492, [8]), (493, [8, 9]), (494, [8]), (495, [8, 9]),
     (496, [8, 9]), (497, [8, 9]), (498, [8, 9]), (499, [8, 9]), (500, [8]), (501, [8]),
     (502, [8, 9]), (503, [8, 9]), (504, [8, 9]), (505, [8]), (506, [8, 9]), (507, [8, 9]),
     (508, [8, 9]), (509, [8]), (510, [8]), (511, [8]), (512, [8]), (513, [8, 9]), (514, [8]),
     (515, [8, 9, 10]), (516, [8]), (517, [8]), (518, [8, 9]), (519, [8]), (520, [8, 9]),
     (521, [8, 9]), (522, [8, 9]), (523, [8, 9]), (524, [8, 9]), (525, [8]), (526, [8]), (527, [8]),
     (528, [8]), (529, [8]), (530, [8]), (531, [8]), (532, [8]), (533, [8]), (534, [8]),
     (535, [8, 9]), (536, [8]), (537, [8]), (538, [8]), (539, [8, 9]), (540, [8]), (541, [8, 9]),
     (542, [8, 9]), (543, [8]), (544, [8]), (545, [8]), (546, [8, 9]), (547, [8, 9]), (548, [8, 9]),
     (549, [8]), (550, [8]), (551, [8]), (552, [8]), (553, [8, 9]), (554, [8]), (555, [8, 9, 10]),
     (556, [8]), (557, [8]), (558, [8, 9]), (559, [8]), (560, [8, 9]), (561, [8, 9]), (562, [8, 9]),
     (563, [8, 9]), (564, [8, 9]), (565, [8]), (566, [8]), (567, [1, 2]), (568, [8]), (569, [8]),
     (570, [8, 9]), (571, [8]), (572, [8, 9]), (573, [8, 9]), (574, [8, 9]), (575, [8, 9]),
     (576, [8, 9]), (577, [8]), (578, [8, 9, 10]), (579, [8]), (580, [8]), (581, [8, 9]),
     (582, [8]), (583, [8, 9]), (584, [8, 9]), (585, [8, 9]), (586, [8, 9]), (587, [8, 9]),
     (588, [8]), (589, [8]), (590, [8]), (591, [8]), (592, [8]), (593, [8]), (594, [8, 9]),
     (595, [8, 9]), (596, [8, 9]), (597, [8]), (598, [8]), (599, [8]), (600, [8]), (601, [8, 9]),
     (602, [8]), (603, [8]), (604, [8]), (605, [8, 9]), (606, [8]), (607, [8, 9]), (608, [8, 9]),
     (609, [8]), (610, [8]), (611, [8]), (612, [8, 9]), (613, [8, 9]), (614, [8, 9]),
     (615, [8, 9, 10]), (616, [8, 9]), (617, [8, 9]), (618, [8, 9])]"

definition reduce_counts_5 :: "(nat \<times> nat list) list" where
  "reduce_counts_5 =
    [(619, [8, 9]), (620, [8, 9]), (621, [8, 9]), (622, [8, 9]), (623, [8, 9, 10]), (624, [8, 9]),
     (625, [8, 9]), (626, [8, 9]), (627, [8, 9]), (628, [8, 9]), (629, [8, 9]), (630, [8, 9]),
     (631, [8, 9, 10]), (632, [8, 9, 10, 11]), (633, [8, 9]), (634, [8, 9]), (635, [8, 9]),
     (636, [8, 9]), (637, [8, 9]), (638, [8, 9]), (639, [8, 9]), (640, [8, 9]), (641, [8, 9]),
     (642, [8, 9]), (643, [8, 9]), (644, [8, 9]), (645, [8, 9]), (646, [8, 9]), (647, [8, 9]),
     (648, [8, 9]), (649, [8, 9, 10]), (650, [8, 9]), (651, [8, 9]), (652, [8, 9]), (653, [8, 9]),
     (654, [8, 9]), (655, [8, 9]), (656, [8, 9]), (657, [8, 9, 10]), (658, [8, 9]), (659, [8, 9]),
     (660, [8, 9]), (661, [6]), (662, [6]), (663, [8]), (664, [6]), (665, [6]), (666, [5]),
     (667, [3]), (668, [6]), (669, [6]), (670, [8]), (671, [8]), (672, [8]), (673, [8]), (674, [8]),
     (675, [8]), (676, [8]), (677, [8]), (678, [8, 9]), (679, [8, 9]), (680, [8, 9]), (681, [8]),
     (682, [8, 9]), (683, [8, 9]), (684, [8, 9]), (685, [8, 9, 10]), (686, [8, 9, 10, 11]),
     (687, [8]), (688, [8]), (689, [8, 9]), (690, [8]), (691, [8, 9]), (692, [8, 9]), (693, [8, 9]),
     (694, [8, 9]), (695, [8, 9]), (696, [8]), (697, [8]), (698, [8]), (699, [8]), (700, [8]),
     (701, [8, 9]), (702, [8]), (703, [8]), (704, [8]), (705, [8]), (706, [8, 9]), (707, [8]),
     (708, [8, 9]), (709, [8, 9]), (710, [8, 9]), (711, [8, 9]), (712, [8, 9]), (713, [8]),
     (714, [8, 9, 10]), (715, [8]), (716, [8]), (717, [8, 9]), (718, [8]), (719, [8, 9]),
     (720, [8, 9]), (721, [8, 9]), (722, [8, 9]), (723, [8, 9]), (724, [8]), (725, [8]),
     (726, [8, 9]), (727, [8, 9]), (728, [8, 9]), (729, [8]), (730, [8, 9]), (731, [8, 9]),
     (732, [8, 9]), (733, [8]), (734, [8]), (735, [8]), (736, [8]), (737, [8, 9]), (738, [8]),
     (739, [8, 9, 10]), (740, [8]), (741, [8]), (742, [8, 9]), (743, [8]), (744, [8, 9]),
     (745, [8, 9]), (746, [8, 9]), (747, [8, 9]), (748, [8, 9]), (749, [8]), (750, [8]), (751, [8]),
     (752, [8]), (753, [8]), (754, [8]), (755, [6]), (756, [5]), (757, [5]), (758, [5]), (759, [3]),
     (760, [3]), (761, [3]), (762, [4]), (763, [2]), (764, [4]), (765, [7]), (766, [5]), (767, [7]),
     (768, [7])]"

definition reduce_counts_6 :: "(nat \<times> nat list) list" where
  "reduce_counts_6 =
    [(769, [7]), (770, [7]), (771, [7]), (772, [7]), (773, [7]), (774, [7]), (775, [7]), (776, [7]),
     (777, [7]), (778, [7]), (779, [7]), (780, [7]), (781, [6]), (782, [4]), (783, [7]), (784, [7]),
     (785, [7]), (786, [7]), (787, [7]), (788, [7]), (789, [7]), (790, [7]), (791, [7]), (792, [7]),
     (793, [7]), (794, [7]), (795, [7]), (796, [7]), (797, [7]), (798, [7]), (799, [9]), (800, [9]),
     (801, [9]), (802, [9]), (803, [9]), (804, [9, 10]), (805, [9]), (806, [9]), (807, [9]),
     (808, [9, 10]), (809, [9]), (810, [9, 10]), (811, [9, 10]), (812, [9]), (813, [9]), (814, [9]),
     (815, [9, 10]), (816, [9, 10]), (817, [9, 10]), (818, [9]), (819, [9]), (820, [9]), (821, [9]),
     (822, [9, 10]), (823, [9]), (824, [9, 10, 11]), (825, [9]), (826, [9]), (827, [9, 10]),
     (828, [9]), (829, [9, 10]), (830, [9, 10]), (831, [9, 10]), (832, [9, 10]), (833, [9, 10]),
     (834, [9]), (835, [9]), (836, [9]), (837, [9]), (838, [9, 10]), (839, [9]), (840, [9, 10]),
     (841, [9, 10]), (842, [9, 10]), (843, [9, 10]), (844, [9, 10]), (845, [9]), (846, [9, 10, 11]),
     (847, [9]), (848, [9]), (849, [9, 10]), (850, [9]), (851, [9, 10]), (852, [9, 10]),
     (853, [9, 10]), (854, [9, 10]), (855, [9, 10]), (856, [9]), (857, [9]), (858, [9]), (859, [9]),
     (860, [9]), (861, [9]), (862, [9, 10]), (863, [9, 10]), (864, [9, 10]), (865, [9]), (866, [9]),
     (867, [9]), (868, [9]), (869, [9, 10]), (870, [9]), (871, [9]), (872, [9]), (873, [9, 10]),
     (874, [9]), (875, [9, 10]), (876, [9, 10]), (877, [9]), (878, [9]), (879, [9]), (880, [9]),
     (881, [9]), (882, [9]), (883, [9]), (884, [9]), (885, [9]), (886, [9]), (887, [9]),
     (888, [9, 10]), (889, [9]), (890, [9]), (891, [9]), (892, [9]), (893, [9, 10]), (894, [9]),
     (895, [9, 10]), (896, [9, 10]), (897, [9, 10]), (898, [9, 10]), (899, [9, 10]), (900, [9]),
     (901, [9]), (902, [9]), (903, [9]), (904, [9]), (905, [9]), (906, [9, 10]), (907, [9, 10]),
     (908, [9, 10]), (909, [9]), (910, [9]), (911, [9]), (912, [9]), (913, [9, 10]), (914, [9]),
     (915, [9]), (916, [9]), (917, [9, 10]), (918, [9])]"

definition reduce_counts_7 :: "(nat \<times> nat list) list" where
  "reduce_counts_7 =
    [(919, [9, 10]), (920, [9, 10]), (921, [9]), (922, [9]), (923, [4]), (924, [2]), (925, [9]),
     (926, [9]), (927, [9]), (928, [9]), (929, [9, 10]), (930, [9]), (931, [9]), (932, [9]),
     (933, [9, 10]), (934, [9]), (935, [9, 10]), (936, [9, 10]), (937, [9]), (938, [9]), (939, [9]),
     (940, [9, 10]), (941, [9, 10]), (942, [9, 10]), (943, [9]), (944, [9]), (945, [9]), (946, [9]),
     (947, [9, 10]), (948, [9]), (949, [9, 10, 11]), (950, [9]), (951, [9]), (952, [9, 10]),
     (953, [9]), (954, [9, 10]), (955, [9, 10]), (956, [9, 10]), (957, [9, 10]), (958, [9, 10]),
     (959, [9]), (960, [9]), (961, [9]), (962, [9]), (963, [9]), (964, [9, 10]), (965, [9]),
     (966, [9, 10]), (967, [9, 10]), (968, [9, 10]), (969, [9, 10]), (970, [9, 10]), (971, [9]),
     (972, [9]), (973, [9]), (974, [9]), (975, [9]), (976, [9]), (977, [9]), (978, [9]), (979, [9]),
     (980, [9, 10]), (981, [9]), (982, [9]), (983, [9, 10]), (984, [9, 10]), (985, [9, 10]),
     (986, [9, 10, 11]), (987, [9, 10]), (988, [9, 10]), (989, [9, 10]), (990, [9, 10]),
     (991, [9, 10]), (992, [9, 10]), (993, [9, 10, 11]), (994, [9, 10]), (995, [9, 10]),
     (996, [9, 10]), (997, [9, 10]), (998, [9, 10]), (999, [9, 10]), (1000, [9, 10]),
     (1001, [9, 10]), (1002, [9, 10]), (1003, [9, 10, 11]), (1004, [9, 10]), (1005, [9, 10]),
     (1006, [9, 10]), (1007, [9, 10]), (1008, [9, 10]), (1009, [9, 10]), (1010, [9, 10]),
     (1011, [9, 10, 11]), (1012, [9, 10]), (1013, [9, 10]), (1014, [9, 10]), (1015, [9, 10]),
     (1016, [9, 10]), (1017, [9, 10]), (1018, [9, 10]), (1019, [9, 10]), (1020, [9, 10]),
     (1021, [9, 10]), (1022, [9, 10]), (1023, [9, 10]), (1024, [9, 10]), (1025, [9, 10]),
     (1026, [9, 10]), (1027, [9, 10]), (1028, [9, 10, 11]), (1029, [9, 10]), (1030, [9, 10]),
     (1031, [9, 10]), (1032, [9, 10]), (1033, [9, 10]), (1034, [9, 10]), (1035, [9, 10, 11]),
     (1036, [9, 10]), (1037, [9, 10]), (1038, [9, 10]), (1039, [9, 10]), (1040, [9, 10]),
     (1041, [9, 10]), (1042, [7]), (1043, [7]), (1044, [7]), (1045, [6]), (1046, [7]),
     (1047, [4, 5]), (1048, [4, 5, 6]), (1049, [5, 6, 7]), (1050, [9]), (1051, [9]), (1052, [9]),
     (1053, [9]), (1054, [9]), (1055, [9]), (1056, [9, 10]), (1057, [9]), (1058, [9, 10]),
     (1059, [9, 10]), (1060, [9, 10]), (1061, [9, 10]), (1062, [9, 10]), (1063, [9]),
     (1064, [9, 10, 11]), (1065, [9]), (1066, [9]), (1067, [9, 10]), (1068, [9])]"

definition reduce_counts_8 :: "(nat \<times> nat list) list" where
  "reduce_counts_8 =
    [(1069, [9, 10]), (1070, [9, 10]), (1071, [9, 10]), (1072, [9, 10]), (1073, [9, 10]),
     (1074, [9]), (1075, [9]), (1076, [9, 10]), (1077, [9, 10]), (1078, [9, 10]), (1079, [9]),
     (1080, [9, 10]), (1081, [9, 10]), (1082, [9, 10]), (1083, [9]), (1084, [9]), (1085, [9]),
     (1086, [9]), (1087, [9, 10]), (1088, [9]), (1089, [9, 10, 11]), (1090, [9]), (1091, [9]),
     (1092, [9, 10]), (1093, [9]), (1094, [9, 10]), (1095, [9, 10]), (1096, [9, 10]),
     (1097, [9, 10]), (1098, [9, 10]), (1099, [9]), (1100, [9]), (1101, [9]), (1102, [9]),
     (1103, [9]), (1104, [9]), (1105, [9]), (1106, [9]), (1107, [9]), (1108, [9]), (1109, [9, 10]),
     (1110, [9]), (1111, [9]), (1112, [9]), (1113, [9, 10]), (1114, [9]), (1115, [9, 10]),
     (1116, [9, 10]), (1117, [9]), (1118, [9]), (1119, [9]), (1120, [9, 10]), (1121, [9, 10]),
     (1122, [9, 10]), (1123, [9]), (1124, [9]), (1125, [9]), (1126, [9]), (1127, [9, 10]),
     (1128, [9]), (1129, [9, 10, 11]), (1130, [9]), (1131, [9]), (1132, [9, 10]), (1133, [9]),
     (1134, [9, 10]), (1135, [9, 10]), (1136, [9, 10]), (1137, [9, 10]), (1138, [9, 10]),
     (1139, [9]), (1140, [9]), (1141, [9]), (1142, [9]), (1143, [9, 10]), (1144, [9]),
     (1145, [9, 10]), (1146, [9, 10]), (1147, [9, 10]), (1148, [9, 10]), (1149, [9, 10]),
     (1150, [9]), (1151, [9, 10, 11]), (1152, [9]), (1153, [9]), (1154, [9, 10]), (1155, [9]),
     (1156, [9, 10]), (1157, [9, 10]), (1158, [9, 10]), (1159, [9, 10]), (1160, [9, 10]),
     (1161, [9]), (1162, [9]), (1163, [9]), (1164, [9]), (1165, [9]), (1166, [9]), (1167, [9, 10]),
     (1168, [9, 10]), (1169, [9, 10]), (1170, [9]), (1171, [9]), (1172, [9]), (1173, [9]),
     (1174, [9, 10]), (1175, [9]), (1176, [9]), (1177, [9]), (1178, [9, 10]), (1179, [9]),
     (1180, [9, 10]), (1181, [9, 10]), (1182, [9]), (1183, [9]), (1184, [9]), (1185, [6]),
     (1186, [4]), (1187, [2]), (1188, [2]), (1189, [8]), (1190, [8]), (1191, [8]), (1192, [8]),
     (1193, [8]), (1194, [8]), (1195, [8]), (1196, [8]), (1197, [8]), (1198, [8]), (1199, [8]),
     (1200, [7]), (1201, [8]), (1202, [6]), (1203, [8]), (1204, [8]), (1205, [8]), (1206, [8]),
     (1207, [8]), (1208, [8]), (1209, [8]), (1210, [8]), (1211, [8]), (1212, [8]), (1213, [8]),
     (1214, [8]), (1215, [8]), (1216, [8]), (1217, [10]), (1218, [10])]"

definition reduce_counts_9 :: "(nat \<times> nat list) list" where
  "reduce_counts_9 =
    [(1219, [10]), (1220, [10]), (1221, [10]), (1222, [10]), (1223, [10]), (1224, [10]),
     (1225, [10, 11]), (1226, [10]), (1227, [10]), (1228, [10]), (1229, [10]), (1230, [10, 11]),
     (1231, [10]), (1232, [10, 11]), (1233, [10, 11]), (1234, [10, 11]), (1235, [10, 11]),
     (1236, [10, 11]), (1237, [10]), (1238, [10]), (1239, [10]), (1240, [10]), (1241, [10]),
     (1242, [10]), (1243, [10, 11]), (1244, [10, 11]), (1245, [10, 11]), (1246, [10]), (1247, [10]),
     (1248, [10]), (1249, [10]), (1250, [10, 11]), (1251, [10]), (1252, [10]), (1253, [10]),
     (1254, [10, 11]), (1255, [10]), (1256, [10, 11]), (1257, [10, 11]), (1258, [10]), (1259, [10]),
     (1260, [10]), (1261, [10]), (1262, [10]), (1263, [10]), (1264, [10, 11]), (1265, [10]),
     (1266, [10]), (1267, [10]), (1268, [10, 11]), (1269, [10]), (1270, [10, 11]), (1271, [10, 11]),
     (1272, [10]), (1273, [10]), (1274, [10]), (1275, [10, 11]), (1276, [10, 11]), (1277, [10, 11]),
     (1278, [10]), (1279, [10]), (1280, [10]), (1281, [10]), (1282, [10, 11]), (1283, [10]),
     (1284, [10, 11, 12]), (1285, [10]), (1286, [10]), (1287, [10, 11]), (1288, [10]),
     (1289, [10, 11]), (1290, [10, 11]), (1291, [10, 11]), (1292, [10, 11]), (1293, [10, 11]),
     (1294, [10]), (1295, [10]), (1296, [10]), (1297, [10]), (1298, [10]), (1299, [10, 11]),
     (1300, [10]), (1301, [10, 11]), (1302, [10, 11]), (1303, [10, 11]), (1304, [10, 11]),
     (1305, [10, 11]), (1306, [10]), (1307, [10]), (1308, [10]), (1309, [10]), (1310, [10]),
     (1311, [10]), (1312, [10]), (1313, [10]), (1314, [10]), (1315, [10, 11]), (1316, [10]),
     (1317, [10]), (1318, [10]), (1319, [10]), (1320, [10]), (1321, [10]), (1322, [10]),
     (1323, [10]), (1324, [10]), (1325, [10]), (1326, [10]), (1327, [10, 11]), (1328, [10]),
     (1329, [10]), (1330, [10]), (1331, [10, 11]), (1332, [10]), (1333, [10, 11]), (1334, [10, 11]),
     (1335, [10]), (1336, [10]), (1337, [10]), (1338, [10]), (1339, [10]), (1340, [10, 11]),
     (1341, [10]), (1342, [10, 11]), (1343, [10, 11]), (1344, [10, 11]), (1345, [10, 11]),
     (1346, [10, 11]), (1347, [10]), (1348, [10]), (1349, [10]), (1350, [10]), (1351, [10]),
     (1352, [10]), (1353, [10]), (1354, [10]), (1355, [10]), (1356, [10, 11]), (1357, [10]),
     (1358, [10]), (1359, [7]), (1360, [5]), (1361, [10]), (1362, [10]), (1363, [10]), (1364, [10]),
     (1365, [10]), (1366, [10]), (1367, [10]), (1368, [10])]"

definition reduce_counts_10 :: "(nat \<times> nat list) list" where
  "reduce_counts_10 =
    [(1369, [10, 11]), (1370, [10]), (1371, [10]), (1372, [10]), (1373, [10]), (1374, [10, 11]),
     (1375, [10]), (1376, [10, 11]), (1377, [10, 11]), (1378, [10, 11]), (1379, [10, 11]),
     (1380, [10, 11]), (1381, [10]), (1382, [10]), (1383, [10]), (1384, [10]), (1385, [10]),
     (1386, [10]), (1387, [10, 11]), (1388, [10, 11]), (1389, [10, 11]), (1390, [10]), (1391, [10]),
     (1392, [10]), (1393, [10]), (1394, [10, 11]), (1395, [10]), (1396, [10]), (1397, [10]),
     (1398, [10, 11]), (1399, [10]), (1400, [10, 11]), (1401, [10, 11]), (1402, [10]), (1403, [10]),
     (1404, [10]), (1405, [10]), (1406, [10]), (1407, [10]), (1408, [10, 11]), (1409, [10]),
     (1410, [10]), (1411, [10]), (1412, [10, 11]), (1413, [10]), (1414, [10, 11]), (1415, [10, 11]),
     (1416, [10]), (1417, [10]), (1418, [10]), (1419, [10]), (1420, [10]), (1421, [10]),
     (1422, [10]), (1423, [10, 11]), (1424, [10, 11]), (1425, [10, 11]), (1426, [10, 11]),
     (1427, [10, 11]), (1428, [10, 11]), (1429, [10, 11]), (1430, [10, 11]), (1431, [10, 11]),
     (1432, [10, 11, 12]), (1433, [10, 11]), (1434, [10, 11]), (1435, [10, 11]), (1436, [10, 11]),
     (1437, [10, 11]), (1438, [10, 11]), (1439, [10, 11]), (1440, [10, 11]), (1441, [10, 11]),
     (1442, [10, 11, 12]), (1443, [10, 11]), (1444, [10, 11]), (1445, [10, 11]), (1446, [10, 11]),
     (1447, [10, 11]), (1448, [10, 11]), (1449, [10, 11, 12]), (1450, [10, 11]), (1451, [10, 11]),
     (1452, [10, 11]), (1453, [10, 11]), (1454, [10, 11]), (1455, [10, 11]), (1456, [10, 11]),
     (1457, [10, 11]), (1458, [10, 11]), (1459, [10, 11]), (1460, [10, 11]), (1461, [10, 11]),
     (1462, [10, 11]), (1463, [10, 11]), (1464, [10, 11]), (1465, [10, 11]), (1466, [10, 11]),
     (1467, [10, 11]), (1468, [10, 11]), (1469, [10, 11]), (1470, [10, 11]), (1471, [10, 11]),
     (1472, [10, 11]), (1473, [10, 11, 12]), (1474, [10, 11]), (1475, [10, 11]), (1476, [10, 11]),
     (1477, [10, 11]), (1478, [10, 11]), (1479, [10, 11]), (1480, [8]), (1481, [3]), (1482, [10]),
     (1483, [10]), (1484, [10]), (1485, [10]), (1486, [10]), (1487, [10, 11]), (1488, [10]),
     (1489, [10]), (1490, [10]), (1491, [10, 11]), (1492, [10]), (1493, [10, 11]), (1494, [10, 11]),
     (1495, [10]), (1496, [10]), (1497, [10]), (1498, [10, 11]), (1499, [10, 11]), (1500, [10, 11]),
     (1501, [10]), (1502, [10]), (1503, [10]), (1504, [10]), (1505, [10, 11]), (1506, [10]),
     (1507, [10, 11, 12]), (1508, [10]), (1509, [10]), (1510, [10, 11]), (1511, [10]),
     (1512, [10, 11]), (1513, [10, 11]), (1514, [10, 11]), (1515, [10, 11]), (1516, [10, 11]),
     (1517, [10]), (1518, [10])]"

definition reduce_counts_11 :: "(nat \<times> nat list) list" where
  "reduce_counts_11 =
    [(1519, [10]), (1520, [10]), (1521, [10, 11]), (1522, [10]), (1523, [10, 11]), (1524, [10, 11]),
     (1525, [10, 11]), (1526, [10, 11]), (1527, [10, 11]), (1528, [10]), (1529, [10, 11, 12]),
     (1530, [10]), (1531, [10]), (1532, [10, 11]), (1533, [10]), (1534, [10, 11]), (1535, [10, 11]),
     (1536, [10, 11]), (1537, [10, 11]), (1538, [10, 11]), (1539, [10]), (1540, [10]), (1541, [10]),
     (1542, [10]), (1543, [10]), (1544, [10]), (1545, [10, 11]), (1546, [10, 11]), (1547, [10, 11]),
     (1548, [10]), (1549, [10]), (1550, [10]), (1551, [10]), (1552, [10, 11]), (1553, [10]),
     (1554, [10]), (1555, [10]), (1556, [10, 11]), (1557, [10]), (1558, [10, 11]), (1559, [10, 11]),
     (1560, [10]), (1561, [10]), (1562, [10]), (1563, [10]), (1564, [10]), (1565, [10]),
     (1566, [10]), (1567, [10]), (1568, [10]), (1569, [10]), (1570, [10]), (1571, [10, 11]),
     (1572, [10]), (1573, [10]), (1574, [10]), (1575, [10]), (1576, [10, 11]), (1577, [10]),
     (1578, [10, 11]), (1579, [10, 11]), (1580, [10, 11]), (1581, [10, 11]), (1582, [10, 11]),
     (1583, [10]), (1584, [10]), (1585, [10]), (1586, [10]), (1587, [10]), (1588, [10]),
     (1589, [10, 11]), (1590, [10, 11]), (1591, [10, 11]), (1592, [10]), (1593, [10]), (1594, [10]),
     (1595, [10]), (1596, [10, 11]), (1597, [10]), (1598, [10]), (1599, [10]), (1600, [10, 11]),
     (1601, [10]), (1602, [10, 11]), (1603, [10, 11]), (1604, [10]), (1605, [10]), (1606, [10]),
     (1607, [10]), (1608, [10]), (1609, [10]), (1610, [10, 11]), (1611, [10]), (1612, [10]),
     (1613, [10]), (1614, [10, 11]), (1615, [10]), (1616, [10, 11]), (1617, [10, 11]), (1618, [10]),
     (1619, [10]), (1620, [10]), (1621, [10, 11]), (1622, [10, 11]), (1623, [10, 11]), (1624, [10]),
     (1625, [10]), (1626, [10]), (1627, [10]), (1628, [10, 11]), (1629, [10]), (1630, [10, 11, 12]),
     (1631, [10]), (1632, [10]), (1633, [10, 11]), (1634, [10]), (1635, [10, 11]), (1636, [10, 11]),
     (1637, [10, 11]), (1638, [10, 11]), (1639, [10, 11]), (1640, [10]), (1641, [10]), (1642, [10]),
     (1643, [10]), (1644, [10]), (1645, [10, 11]), (1646, [10]), (1647, [10, 11]), (1648, [10, 11]),
     (1649, [10, 11]), (1650, [10, 11]), (1651, [10, 11]), (1652, [10]), (1653, [10]), (1654, [10]),
     (1655, [10]), (1656, [10]), (1657, [10]), (1658, [10]), (1659, [10]), (1660, [10]),
     (1661, [10, 11]), (1662, [10]), (1663, [10]), (1664, [5]), (1665, [7]), (1666, [9]),
     (1667, [9]), (1668, [9])]"

definition reduce_counts_12 :: "(nat \<times> nat list) list" where
  "reduce_counts_12 =
    [(1669, [9]), (1670, [9]), (1671, [8]), (1672, [9]), (1673, [9]), (1674, [9]), (1675, [9]),
     (1676, [9]), (1677, [9]), (1678, [9]), (1679, [9]), (1680, [9]), (1681, [9]), (1682, [9]),
     (1683, [11]), (1684, [11]), (1685, [11]), (1686, [11]), (1687, [11]), (1688, [11]),
     (1689, [11]), (1690, [11]), (1691, [11]), (1692, [11, 12]), (1693, [11]), (1694, [11]),
     (1695, [11]), (1696, [11, 12]), (1697, [11]), (1698, [11, 12]), (1699, [11, 12]), (1700, [11]),
     (1701, [11]), (1702, [11]), (1703, [11]), (1704, [11]), (1705, [11, 12]), (1706, [11]),
     (1707, [11, 12]), (1708, [11, 12]), (1709, [11, 12]), (1710, [11, 12]), (1711, [11, 12]),
     (1712, [11]), (1713, [11]), (1714, [11]), (1715, [11]), (1716, [11]), (1717, [11]),
     (1718, [11]), (1719, [11]), (1720, [11]), (1721, [11, 12]), (1722, [11]), (1723, [11]),
     (1724, [11]), (1725, [11]), (1726, [11]), (1727, [11]), (1728, [11]), (1729, [11]),
     (1730, [11]), (1731, [11]), (1732, [11, 12]), (1733, [11]), (1734, [11]), (1735, [11]),
     (1736, [11]), (1737, [11, 12]), (1738, [11]), (1739, [11, 12]), (1740, [11, 12]),
     (1741, [11, 12]), (1742, [11, 12]), (1743, [11, 12]), (1744, [11]), (1745, [11]), (1746, [11]),
     (1747, [11]), (1748, [11]), (1749, [11]), (1750, [11, 12]), (1751, [11, 12]), (1752, [11, 12]),
     (1753, [11]), (1754, [11]), (1755, [11]), (1756, [11]), (1757, [11, 12]), (1758, [11]),
     (1759, [11]), (1760, [11]), (1761, [11, 12]), (1762, [11]), (1763, [11, 12]), (1764, [11, 12]),
     (1765, [11]), (1766, [11]), (1767, [11]), (1768, [11]), (1769, [11]), (1770, [11]),
     (1771, [11, 12]), (1772, [11]), (1773, [11]), (1774, [11]), (1775, [11, 12]), (1776, [11]),
     (1777, [11, 12]), (1778, [11, 12]), (1779, [11]), (1780, [11]), (1781, [11]), (1782, [11]),
     (1783, [11]), (1784, [11]), (1785, [11]), (1786, [11]), (1787, [11]), (1788, [11]),
     (1789, [11]), (1790, [11]), (1791, [11]), (1792, [11]), (1793, [11]), (1794, [11]),
     (1795, [11, 12]), (1796, [11]), (1797, [11]), (1798, [11]), (1799, [11]), (1800, [11]),
     (1801, [11]), (1802, [11, 12]), (1803, [11]), (1804, [11]), (1805, [11]), (1806, [11, 12]),
     (1807, [11]), (1808, [11, 12]), (1809, [11, 12]), (1810, [11]), (1811, [11]), (1812, [11]),
     (1813, [11]), (1814, [11]), (1815, [11]), (1816, [11]), (1817, [11]), (1818, [11])]"

definition reduce_counts_13 :: "(nat \<times> nat list) list" where
  "reduce_counts_13 =
    [(1819, [11]), (1820, [11]), (1821, [11]), (1822, [11]), (1823, [11]), (1824, [11]),
     (1825, [11]), (1826, [11, 12]), (1827, [11]), (1828, [11]), (1829, [11]), (1830, [11, 12]),
     (1831, [11]), (1832, [11, 12]), (1833, [11, 12]), (1834, [11]), (1835, [11]), (1836, [11]),
     (1837, [11]), (1838, [11]), (1839, [11, 12]), (1840, [11]), (1841, [11, 12]), (1842, [11, 12]),
     (1843, [11, 12]), (1844, [11, 12]), (1845, [11, 12]), (1846, [11]), (1847, [11]), (1848, [11]),
     (1849, [11]), (1850, [11]), (1851, [11]), (1852, [11]), (1853, [11]), (1854, [11]),
     (1855, [11, 12]), (1856, [11]), (1857, [11]), (1858, [11]), (1859, [11]), (1860, [11]),
     (1861, [11]), (1862, [11]), (1863, [11]), (1864, [11]), (1865, [11]), (1866, [11, 12]),
     (1867, [11]), (1868, [11]), (1869, [11]), (1870, [11, 12]), (1871, [11, 12]), (1872, [11, 12]),
     (1873, [11, 12]), (1874, [11, 12]), (1875, [11, 12]), (1876, [11, 12]), (1877, [11, 12]),
     (1878, [11, 12]), (1879, [11, 12]), (1880, [11, 12]), (1881, [11, 12]), (1882, [11, 12]),
     (1883, [11, 12]), (1884, [11, 12]), (1885, [11, 12]), (1886, [11, 12]), (1887, [11, 12]),
     (1888, [11, 12]), (1889, [11, 12]), (1890, [11, 12, 13]), (1891, [11, 12]), (1892, [11, 12]),
     (1893, [11, 12]), (1894, [11, 12]), (1895, [11, 12]), (1896, [11, 12]), (1897, [11, 12]),
     (1898, [11, 12]), (1899, [11, 12]), (1900, [11, 12]), (1901, [11, 12]), (1902, [11, 12]),
     (1903, [11, 12]), (1904, [11, 12]), (1905, [11, 12]), (1906, [11, 12]), (1907, [11, 12]),
     (1908, [11, 12]), (1909, [11, 12]), (1910, [11, 12]), (1911, [11, 12]), (1912, [11]),
     (1913, [11]), (1914, [11]), (1915, [11]), (1916, [11]), (1917, [11]), (1918, [11]),
     (1919, [11]), (1920, [11, 12]), (1921, [11]), (1922, [11]), (1923, [11]), (1924, [11]),
     (1925, [11, 12]), (1926, [11]), (1927, [11, 12]), (1928, [11, 12]), (1929, [11, 12]),
     (1930, [11, 12]), (1931, [11, 12]), (1932, [11]), (1933, [11]), (1934, [11]), (1935, [11]),
     (1936, [11]), (1937, [11]), (1938, [11, 12]), (1939, [11, 12]), (1940, [11, 12]), (1941, [11]),
     (1942, [11]), (1943, [11]), (1944, [11]), (1945, [11, 12]), (1946, [11]), (1947, [11]),
     (1948, [11]), (1949, [11, 12]), (1950, [11]), (1951, [11, 12]), (1952, [11, 12]), (1953, [11]),
     (1954, [11]), (1955, [11]), (1956, [11]), (1957, [11]), (1958, [11]), (1959, [11, 12]),
     (1960, [11]), (1961, [11]), (1962, [11]), (1963, [11, 12]), (1964, [11]), (1965, [11, 12]),
     (1966, [11, 12]), (1967, [11]), (1968, [11])]"

definition reduce_counts_14 :: "(nat \<times> nat list) list" where
  "reduce_counts_14 =
    [(1969, [11]), (1970, [11, 12]), (1971, [11, 12]), (1972, [11, 12]), (1973, [11]), (1974, [11]),
     (1975, [11]), (1976, [11]), (1977, [11, 12]), (1978, [11]), (1979, [11, 12, 13]), (1980, [11]),
     (1981, [11]), (1982, [11, 12]), (1983, [11]), (1984, [11, 12]), (1985, [11, 12]),
     (1986, [11, 12]), (1987, [11, 12]), (1988, [11, 12]), (1989, [11]), (1990, [11]), (1991, [11]),
     (1992, [11]), (1993, [11]), (1994, [11, 12]), (1995, [11]), (1996, [11, 12]), (1997, [11, 12]),
     (1998, [11, 12]), (1999, [11, 12]), (2000, [11, 12]), (2001, [11]), (2002, [11]), (2003, [11]),
     (2004, [11]), (2005, [11]), (2006, [11]), (2007, [11]), (2008, [11]), (2009, [11]),
     (2010, [11, 12]), (2011, [11]), (2012, [11]), (2013, [11]), (2014, [11]), (2015, [11]),
     (2016, [11]), (2017, [11]), (2018, [11]), (2019, [11]), (2020, [11]), (2021, [11]),
     (2022, [11, 12]), (2023, [11]), (2024, [11]), (2025, [11]), (2026, [11, 12]), (2027, [11]),
     (2028, [11, 12]), (2029, [11, 12]), (2030, [11]), (2031, [11]), (2032, [11]), (2033, [11]),
     (2034, [11]), (2035, [11, 12]), (2036, [11]), (2037, [11, 12]), (2038, [11, 12]),
     (2039, [11, 12]), (2040, [11, 12]), (2041, [11, 12]), (2042, [11]), (2043, [11]), (2044, [11]),
     (2045, [11]), (2046, [11]), (2047, [11]), (2048, [11]), (2049, [11]), (2050, [11]),
     (2051, [11, 12]), (2052, [11]), (2053, [11]), (2054, [11]), (2055, [11]), (2056, [11]),
     (2057, [11]), (2058, [11]), (2059, [11]), (2060, [11]), (2061, [11]), (2062, [11, 12]),
     (2063, [11]), (2064, [11]), (2065, [11]), (2066, [11]), (2067, [11, 12]), (2068, [11]),
     (2069, [11, 12]), (2070, [11, 12]), (2071, [11, 12]), (2072, [11, 12]), (2073, [11, 12]),
     (2074, [11]), (2075, [11]), (2076, [11]), (2077, [11]), (2078, [11]), (2079, [11]),
     (2080, [11, 12]), (2081, [11, 12]), (2082, [11, 12]), (2083, [11]), (2084, [11]), (2085, [11]),
     (2086, [11]), (2087, [11, 12]), (2088, [11]), (2089, [11]), (2090, [11]), (2091, [11, 12]),
     (2092, [11]), (2093, [11, 12]), (2094, [11, 12]), (2095, [11]), (2096, [11]), (2097, [11]),
     (2098, [11]), (2099, [11]), (2100, [11]), (2101, [11, 12]), (2102, [11]), (2103, [11]),
     (2104, [11]), (2105, [11, 12]), (2106, [11]), (2107, [11, 12]), (2108, [11, 12]), (2109, [11]),
     (2110, [11]), (2111, [11]), (2112, [11]), (2113, [11]), (2114, [11]), (2115, [11]),
     (2116, [8]), (2117, [10]), (2118, [10])]"

definition reduce_counts_15 :: "(nat \<times> nat list) list" where
  "reduce_counts_15 =
    [(2119, [10]), (2120, [10]), (2121, [10]), (2122, [10]), (2123, [12]), (2124, [12]),
     (2125, [12]), (2126, [12]), (2127, [12]), (2128, [12]), (2129, [12]), (2130, [12]),
     (2131, [12]), (2132, [12, 13]), (2133, [12]), (2134, [12]), (2135, [12]), (2136, [12]),
     (2137, [12]), (2138, [12]), (2139, [12, 13]), (2140, [12]), (2141, [12]), (2142, [12]),
     (2143, [12, 13]), (2144, [12]), (2145, [12, 13]), (2146, [12, 13]), (2147, [12]), (2148, [12]),
     (2149, [12]), (2150, [12]), (2151, [12]), (2152, [12]), (2153, [12]), (2154, [12]),
     (2155, [12]), (2156, [12]), (2157, [12]), (2158, [12]), (2159, [12]), (2160, [12]),
     (2161, [12]), (2162, [12]), (2163, [12, 13]), (2164, [12]), (2165, [12]), (2166, [12]),
     (2167, [12, 13]), (2168, [12]), (2169, [12, 13]), (2170, [12, 13]), (2171, [12]), (2172, [12]),
     (2173, [12]), (2174, [12]), (2175, [12]), (2176, [12, 13]), (2177, [12]), (2178, [12, 13]),
     (2179, [12, 13]), (2180, [12, 13]), (2181, [12, 13]), (2182, [12, 13]), (2183, [12]),
     (2184, [12]), (2185, [12]), (2186, [12]), (2187, [12]), (2188, [12]), (2189, [12]),
     (2190, [12]), (2191, [12]), (2192, [12, 13]), (2193, [12]), (2194, [12]), (2195, [12]),
     (2196, [12]), (2197, [12]), (2198, [12]), (2199, [12]), (2200, [12]), (2201, [12]),
     (2202, [12]), (2203, [12, 13]), (2204, [12]), (2205, [12]), (2206, [12]), (2207, [12]),
     (2208, [12]), (2209, [12]), (2210, [12]), (2211, [12]), (2212, [12]), (2213, [12]),
     (2214, [12]), (2215, [12]), (2216, [12]), (2217, [12]), (2218, [12]), (2219, [12]),
     (2220, [12, 13]), (2221, [12]), (2222, [12]), (2223, [12]), (2224, [12]), (2225, [12]),
     (2226, [12]), (2227, [12]), (2228, [12]), (2229, [12]), (2230, [12]), (2231, [12]),
     (2232, [12]), (2233, [12, 13]), (2234, [12]), (2235, [12]), (2236, [12]), (2237, [12]),
     (2238, [12]), (2239, [12]), (2240, [12, 13]), (2241, [12]), (2242, [12]), (2243, [12]),
     (2244, [12, 13]), (2245, [12]), (2246, [12, 13]), (2247, [12, 13]), (2248, [12]), (2249, [12]),
     (2250, [12]), (2251, [12]), (2252, [12]), (2253, [12]), (2254, [12]), (2255, [12]),
     (2256, [12]), (2257, [12]), (2258, [12]), (2259, [12]), (2260, [12, 13]), (2261, [12, 13]),
     (2262, [12, 13]), (2263, [12, 13]), (2264, [12, 13]), (2265, [12, 13]), (2266, [12, 13]),
     (2267, [12, 13]), (2268, [12, 13])]"

definition reduce_counts_16 :: "(nat \<times> nat list) list" where
  "reduce_counts_16 =
    [(2269, [12, 13]), (2270, [12, 13]), (2271, [12, 13]), (2272, [12, 13]), (2273, [12, 13]),
     (2274, [12, 13]), (2275, [12, 13]), (2276, [12, 13]), (2277, [12, 13]), (2278, [12, 13]),
     (2279, [12, 13]), (2280, [12, 13]), (2281, [12, 13]), (2282, [12]), (2283, [12]), (2284, [12]),
     (2285, [12]), (2286, [12]), (2287, [12]), (2288, [12]), (2289, [12]), (2290, [12]),
     (2291, [12, 13]), (2292, [12]), (2293, [12]), (2294, [12]), (2295, [12, 13]), (2296, [12]),
     (2297, [12, 13]), (2298, [12, 13]), (2299, [12]), (2300, [12]), (2301, [12]), (2302, [12]),
     (2303, [12]), (2304, [12, 13]), (2305, [12]), (2306, [12, 13]), (2307, [12, 13]),
     (2308, [12, 13]), (2309, [12, 13]), (2310, [12, 13]), (2311, [12]), (2312, [12]), (2313, [12]),
     (2314, [12]), (2315, [12]), (2316, [12]), (2317, [12]), (2318, [12]), (2319, [12]),
     (2320, [12, 13]), (2321, [12]), (2322, [12]), (2323, [12]), (2324, [12]), (2325, [12]),
     (2326, [12]), (2327, [12]), (2328, [12]), (2329, [12]), (2330, [12]), (2331, [12, 13]),
     (2332, [12]), (2333, [12]), (2334, [12]), (2335, [12]), (2336, [12, 13]), (2337, [12]),
     (2338, [12, 13]), (2339, [12, 13]), (2340, [12, 13]), (2341, [12, 13]), (2342, [12, 13]),
     (2343, [12]), (2344, [12]), (2345, [12]), (2346, [12]), (2347, [12]), (2348, [12]),
     (2349, [12, 13]), (2350, [12, 13]), (2351, [12, 13]), (2352, [12]), (2353, [12]), (2354, [12]),
     (2355, [12]), (2356, [12, 13]), (2357, [12]), (2358, [12]), (2359, [12]), (2360, [12, 13]),
     (2361, [12]), (2362, [12, 13]), (2363, [12, 13]), (2364, [12]), (2365, [12]), (2366, [12]),
     (2367, [12]), (2368, [12]), (2369, [12]), (2370, [12, 13]), (2371, [12]), (2372, [12]),
     (2373, [12]), (2374, [12, 13]), (2375, [12]), (2376, [12, 13]), (2377, [12, 13]), (2378, [12]),
     (2379, [12]), (2380, [12]), (2381, [12]), (2382, [12]), (2383, [12]), (2384, [12]),
     (2385, [12]), (2386, [12]), (2387, [12]), (2388, [12]), (2389, [12]), (2390, [12]),
     (2391, [12]), (2392, [12]), (2393, [12]), (2394, [12, 13]), (2395, [12]), (2396, [12]),
     (2397, [12]), (2398, [12]), (2399, [12]), (2400, [12]), (2401, [12, 13]), (2402, [12]),
     (2403, [12]), (2404, [12]), (2405, [12, 13]), (2406, [12]), (2407, [12, 13]), (2408, [12, 13]),
     (2409, [12]), (2410, [12]), (2411, [12]), (2412, [12]), (2413, [12]), (2414, [12]),
     (2415, [12]), (2416, [12]), (2417, [12]), (2418, [12])]"

definition reduce_counts_17 :: "(nat \<times> nat list) list" where
  "reduce_counts_17 =
    [(2419, [12]), (2420, [12]), (2421, [12]), (2422, [12]), (2423, [12]), (2424, [12]),
     (2425, [12, 13]), (2426, [12]), (2427, [12]), (2428, [12]), (2429, [12, 13]), (2430, [12]),
     (2431, [12, 13]), (2432, [12, 13]), (2433, [12]), (2434, [12]), (2435, [12]), (2436, [12]),
     (2437, [12]), (2438, [12, 13]), (2439, [12]), (2440, [12, 13]), (2441, [12, 13]),
     (2442, [12, 13]), (2443, [12, 13]), (2444, [12, 13]), (2445, [12]), (2446, [12]), (2447, [12]),
     (2448, [12]), (2449, [12]), (2450, [12]), (2451, [12]), (2452, [12]), (2453, [12]),
     (2454, [12, 13]), (2455, [12]), (2456, [12]), (2457, [12]), (2458, [12]), (2459, [12]),
     (2460, [12]), (2461, [12]), (2462, [12]), (2463, [12]), (2464, [12]), (2465, [12, 13]),
     (2466, [12]), (2467, [12]), (2468, [12]), (2469, [11]), (2470, [13]), (2471, [13]),
     (2472, [13]), (2473, [13]), (2474, [13]), (2475, [13]), (2476, [13]), (2477, [13]),
     (2478, [13]), (2479, [13]), (2480, [13]), (2481, [13]), (2482, [13]), (2483, [13, 14]),
     (2484, [13]), (2485, [13]), (2486, [13]), (2487, [13]), (2488, [13]), (2489, [13]),
     (2490, [13]), (2491, [13]), (2492, [13]), (2493, [13]), (2494, [13]), (2495, [13]),
     (2496, [13, 14]), (2497, [13]), (2498, [13]), (2499, [13]), (2500, [13]), (2501, [13]),
     (2502, [13]), (2503, [13, 14]), (2504, [13]), (2505, [13]), (2506, [13]), (2507, [13, 14]),
     (2508, [13]), (2509, [13, 14]), (2510, [13, 14]), (2511, [13]), (2512, [13]), (2513, [13]),
     (2514, [13]), (2515, [13]), (2516, [13]), (2517, [13]), (2518, [13]), (2519, [13]),
     (2520, [13]), (2521, [13]), (2522, [13]), (2523, [13]), (2524, [13]), (2525, [13]),
     (2526, [13]), (2527, [13]), (2528, [13]), (2529, [13]), (2530, [13]), (2531, [13]),
     (2532, [13]), (2533, [13]), (2534, [13]), (2535, [13]), (2536, [13]), (2537, [13]),
     (2538, [13]), (2539, [13]), (2540, [13]), (2541, [13]), (2542, [13, 14]), (2543, [13]),
     (2544, [13]), (2545, [13]), (2546, [13]), (2547, [13, 14]), (2548, [13, 14]), (2549, [13, 14]),
     (2550, [13, 14]), (2551, [13, 14]), (2552, [13, 14]), (2553, [13, 14]), (2554, [9, 10]),
     (2555, [9, 10, 11]), (2556, [9, 10, 11]), (2557, [13]), (2558, [13]), (2559, [13]),
     (2560, [13]), (2561, [13]), (2562, [13]), (2563, [13]), (2564, [13]), (2565, [13]),
     (2566, [13, 14]), (2567, [13]), (2568, [13])]"

definition reduce_counts_18 :: "(nat \<times> nat list) list" where
  "reduce_counts_18 =
    [(2569, [13]), (2570, [13]), (2571, [13]), (2572, [13]), (2573, [13, 14]), (2574, [13]),
     (2575, [13]), (2576, [13]), (2577, [13, 14]), (2578, [13]), (2579, [13, 14]), (2580, [13, 14]),
     (2581, [13]), (2582, [13]), (2583, [13]), (2584, [13]), (2585, [13]), (2586, [13]),
     (2587, [13]), (2588, [13]), (2589, [13]), (2590, [13]), (2591, [13]), (2592, [13]),
     (2593, [13]), (2594, [13]), (2595, [13]), (2596, [13]), (2597, [13, 14]), (2598, [13]),
     (2599, [13]), (2600, [13]), (2601, [13, 14]), (2602, [13]), (2603, [13, 14]), (2604, [13, 14]),
     (2605, [13]), (2606, [13]), (2607, [13]), (2608, [13]), (2609, [13]), (2610, [13, 14]),
     (2611, [13]), (2612, [13, 14]), (2613, [13, 14]), (2614, [13, 14]), (2615, [13, 14]),
     (2616, [13, 14]), (2617, [13]), (2618, [13]), (2619, [13]), (2620, [13]), (2621, [13]),
     (2622, [13]), (2623, [13]), (2624, [13]), (2625, [13]), (2626, [13, 14]), (2627, [13]),
     (2628, [13]), (2629, [13]), (2630, [13]), (2631, [13]), (2632, [13]), (2633, [13]),
     (2634, [13]), (2635, [13]), (2636, [13]), (2637, [13, 14]), (2638, [13]), (2639, [13]),
     (2640, [13]), (2641, [13]), (2642, [13]), (2643, [13]), (2644, [13]), (2645, [13]),
     (2646, [13]), (2647, [13]), (2648, [13]), (2649, [13]), (2650, [13]), (2651, [13]),
     (2652, [13]), (2653, [13]), (2654, [13, 14]), (2655, [13]), (2656, [13]), (2657, [13]),
     (2658, [13]), (2659, [13]), (2660, [13]), (2661, [13]), (2662, [13]), (2663, [13]),
     (2664, [13]), (2665, [13]), (2666, [13]), (2667, [13, 14]), (2668, [13]), (2669, [13]),
     (2670, [13]), (2671, [13]), (2672, [13]), (2673, [13]), (2674, [13, 14]), (2675, [13]),
     (2676, [13]), (2677, [13]), (2678, [13, 14]), (2679, [13]), (2680, [13, 14]), (2681, [13, 14]),
     (2682, [13]), (2683, [13]), (2684, [13]), (2685, [13]), (2686, [13]), (2687, [13]),
     (2688, [13]), (2689, [13]), (2690, [13]), (2691, [13]), (2692, [13]), (2693, [13]),
     (2694, [14]), (2695, [14]), (2696, [14]), (2697, [14]), (2698, [14]), (2699, [14]),
     (2700, [14]), (2701, [14]), (2702, [14]), (2703, [14]), (2704, [14]), (2705, [14]),
     (2706, [14]), (2707, [14]), (2708, [14]), (2709, [14]), (2710, [14]), (2711, [14]),
     (2712, [14]), (2713, [14, 15]), (2714, [14]), (2715, [14]), (2716, [14]), (2717, [14]),
     (2718, [14])]"

definition reduce_counts_19 :: "(nat \<times> nat list) list" where
  "reduce_counts_19 =
    [(2719, [14]), (2720, [14]), (2721, [14]), (2722, [14]), (2723, [14]), (2724, [14]),
     (2725, [14, 15]), (2726, [10, 11, 12]), (2727, [14]), (2728, [14]), (2729, [14]), (2730, [14]),
     (2731, [14]), (2732, [14]), (2733, [14]), (2734, [14]), (2735, [14]), (2736, [14]),
     (2737, [14]), (2738, [14]), (2739, [14]), (2740, [14, 15]), (2741, [14]), (2742, [14]),
     (2743, [14]), (2744, [14]), (2745, [14]), (2746, [14]), (2747, [14]), (2748, [14]),
     (2749, [14]), (2750, [14]), (2751, [14]), (2752, [14]), (2753, [14, 15]), (2754, [14]),
     (2755, [14]), (2756, [14]), (2757, [14]), (2758, [14]), (2759, [14]), (2760, [14, 15]),
     (2761, [14]), (2762, [14]), (2763, [14]), (2764, [14, 15]), (2765, [14]), (2766, [14, 15]),
     (2767, [14, 15]), (2768, [14]), (2769, [14]), (2770, [14]), (2771, [14]), (2772, [14]),
     (2773, [14]), (2774, [14]), (2775, [14]), (2776, [14]), (2777, [14]), (2778, [14]),
     (2779, [14]), (2780, [14]), (2781, [14]), (2782, [14]), (2783, [14]), (2784, [14]),
     (2785, [14]), (2786, [14]), (2787, [14]), (2788, [14]), (2789, [14]), (2790, [14]),
     (2791, [14]), (2792, [14]), (2793, [14]), (2794, [14]), (2795, [14]), (2796, [14]),
     (2797, [14]), (2798, [14]), (2799, [14, 15]), (2800, [14]), (2801, [14]), (2802, [14]),
     (2803, [14]), (2804, [15]), (2805, [15]), (2806, [15]), (2807, [15]), (2808, [15]),
     (2809, [15]), (2810, [15]), (2811, [15]), (2812, [15]), (2813, [15]), (2814, [15]),
     (2815, [15]), (2816, [15]), (2817, [15]), (2818, [15]), (2819, [15]), (2820, [15]),
     (2821, [15]), (2822, [15]), (2823, [15]), (2824, [15]), (2825, [15]), (2826, [15]),
     (2827, [15]), (2828, [15]), (2829, [15]), (2830, [15]), (2831, [15, 16]), (2832, [15]),
     (2833, [15]), (2834, [15]), (2835, [15]), (2836, [15]), (2837, [15]), (2838, [15]),
     (2839, [15]), (2840, [15]), (2841, [15]), (2842, [15]), (2843, [16]), (2844, [16]),
     (2845, [16]), (2846, [16]), (2847, [16]), (2848, [16]), (2849, [16]), (2850, [16]),
     (2851, [16]), (2852, [13, 14, 15]), (2853, [17]), (2854, [14, 15, 16])]"

text \<open>The productions with no field.\<close>

definition fieldless_counts :: "(nat \<times> nat list) list" where
  "fieldless_counts =
    [(0, [0, 1, 2, 3, 4, 5, 8, 9, 13, 14]), (1, [1]), (6, [1]), (15, [1]), (24, [1]), (117, [1]),
     (118, [1]), (119, [1]), (120, [1]), (121, [1]), (122, [1]), (123, [1]), (124, [1]), (125, [1]),
     (126, [1]), (127, [1]), (128, [1]), (129, [1]), (130, [1])]"

definition reduce_counts :: "(nat \<times> nat list) list" where
  "reduce_counts =
     reduce_counts_1 @ reduce_counts_2 @ reduce_counts_3 @ reduce_counts_4 @ reduce_counts_5 @
     reduce_counts_6 @ reduce_counts_7 @ reduce_counts_8 @ reduce_counts_9 @ reduce_counts_10 @
     reduce_counts_11 @ reduce_counts_12 @ reduce_counts_13 @ reduce_counts_14 @ reduce_counts_15 @
     reduce_counts_16 @ reduce_counts_17 @ reduce_counts_18 @ reduce_counts_19"

section \<open>The fields of a production\<close>

definition slice_within :: "nat \<Rightarrow> TSMapSlice \<Rightarrow> bool" where
  "slice_within c s \<longleftrightarrow>
     0 < c \<and> c \<le> 17 \<and> list_all (\<lambda>e. child_index e < c) (slice_of ts_field_map_entries s)"

definition counts_fit :: "nat \<times> TSMapSlice \<Rightarrow> nat \<times> nat list \<Rightarrow> bool" where
  "counts_fit = (\<lambda>(p, s) (q, cs). p = q \<and> list_all (\<lambda>c. slice_within c s) cs)"

lemma counts_fit_pair:
  "counts_fit (p, s) (q, cs) \<longleftrightarrow> p = q \<and> list_all (\<lambda>c. slice_within c s) cs"
  by (simp add: counts_fit_def)

lemma list_all2_counts_weak:
  "list_all2 counts_fit ss cs = list_all2 counts_fit ss cs"
  by simp

lemma map_entries_runs:
  "list_all (\<lambda>(i, vs). \<forall>c. slice_within c (Slice i (run_length vs)) \<longleftrightarrow>
     0 < c \<and> c \<le> 17 \<and> list_all (\<lambda>e. child_index e < c) vs) field_map_runs"
  using field_map.table_slices by (auto simp: list_all_iff slice_within_def)

lemmas width_1 [simp] =
  field_map_parts(1) [OF map_entries_runs, unfolded ts_field_map_entries_1_def entry_simps run_length_simps]

lemmas width_2 [simp] =
  field_map_parts(2) [OF map_entries_runs, unfolded ts_field_map_entries_2_def entry_simps run_length_simps]

lemmas width_3 [simp] =
  field_map_parts(3) [OF map_entries_runs, unfolded ts_field_map_entries_3_def entry_simps run_length_simps]

lemmas width_4 [simp] =
  field_map_parts(4) [OF map_entries_runs, unfolded ts_field_map_entries_4_def entry_simps run_length_simps]

lemmas width_5 [simp] =
  field_map_parts(5) [OF map_entries_runs, unfolded ts_field_map_entries_5_def entry_simps run_length_simps]

lemmas width_6 [simp] =
  field_map_parts(6) [OF map_entries_runs, unfolded ts_field_map_entries_6_def entry_simps run_length_simps]

lemmas width_7 [simp] =
  field_map_parts(7) [OF map_entries_runs, unfolded ts_field_map_entries_7_def entry_simps run_length_simps]

lemmas width_8 [simp] =
  field_map_parts(8) [OF map_entries_runs, unfolded ts_field_map_entries_8_def entry_simps run_length_simps]

lemmas width_9 [simp] =
  field_map_parts(9) [OF map_entries_runs, unfolded ts_field_map_entries_9_def entry_simps run_length_simps]

lemmas width_10 [simp] =
  field_map_parts(10) [OF map_entries_runs, unfolded ts_field_map_entries_10_def entry_simps run_length_simps]

lemmas width_11 [simp] =
  field_map_parts(11) [OF map_entries_runs, unfolded ts_field_map_entries_11_def entry_simps run_length_simps]

lemmas width_12 [simp] =
  field_map_parts(12) [OF map_entries_runs, unfolded ts_field_map_entries_12_def entry_simps run_length_simps]

lemmas width_13 [simp] =
  field_map_parts(13) [OF map_entries_runs, unfolded ts_field_map_entries_13_def entry_simps run_length_simps]

lemmas width_14 [simp] =
  field_map_parts(14) [OF map_entries_runs, unfolded ts_field_map_entries_14_def entry_simps run_length_simps]

lemmas width_15 [simp] =
  field_map_parts(15) [OF map_entries_runs, unfolded ts_field_map_entries_15_def entry_simps run_length_simps]

lemmas width_16 [simp] =
  field_map_parts(16) [OF map_entries_runs, unfolded ts_field_map_entries_16_def entry_simps run_length_simps]

lemmas width_17 [simp] =
  field_map_parts(17) [OF map_entries_runs, unfolded ts_field_map_entries_17_def entry_simps run_length_simps]

lemmas width_18 [simp] =
  field_map_parts(18) [OF map_entries_runs, unfolded ts_field_map_entries_18_def entry_simps run_length_simps]

lemmas width_19 [simp] =
  field_map_parts(19) [OF map_entries_runs, unfolded ts_field_map_entries_19_def entry_simps run_length_simps]

lemmas width_20 [simp] =
  field_map_parts(20) [OF map_entries_runs, unfolded ts_field_map_entries_20_def entry_simps run_length_simps]

lemmas width_21 [simp] =
  field_map_parts(21) [OF map_entries_runs, unfolded ts_field_map_entries_21_def entry_simps run_length_simps]

lemmas width_22 [simp] =
  field_map_parts(22) [OF map_entries_runs, unfolded ts_field_map_entries_22_def entry_simps run_length_simps]

lemmas width_23 [simp] =
  field_map_parts(23) [OF map_entries_runs, unfolded ts_field_map_entries_23_def entry_simps run_length_simps]

lemmas width_24 [simp] =
  field_map_parts(24) [OF map_entries_runs, unfolded ts_field_map_entries_24_def entry_simps run_length_simps]

lemmas width_25 [simp] =
  field_map_parts(25) [OF map_entries_runs, unfolded ts_field_map_entries_25_def entry_simps run_length_simps]

lemmas width_26 [simp] =
  field_map_parts(26) [OF map_entries_runs, unfolded ts_field_map_entries_26_def entry_simps run_length_simps]

lemmas width_27 [simp] =
  field_map_parts(27) [OF map_entries_runs, unfolded ts_field_map_entries_27_def entry_simps run_length_simps]

lemmas width_28 [simp] =
  field_map_parts(28) [OF map_entries_runs, unfolded ts_field_map_entries_28_def entry_simps run_length_simps]

lemmas width_29 [simp] =
  field_map_parts(29) [OF map_entries_runs, unfolded ts_field_map_entries_29_def entry_simps run_length_simps]

lemmas width_30 [simp] =
  field_map_parts(30) [OF map_entries_runs, unfolded ts_field_map_entries_30_def entry_simps run_length_simps]

lemmas width_31 [simp] =
  field_map_parts(31) [OF map_entries_runs, unfolded ts_field_map_entries_31_def entry_simps run_length_simps]

lemmas width_32 [simp] =
  field_map_parts(32) [OF map_entries_runs, unfolded ts_field_map_entries_32_def entry_simps run_length_simps]

lemmas width_33 [simp] =
  field_map_parts(33) [OF map_entries_runs, unfolded ts_field_map_entries_33_def entry_simps run_length_simps]

lemmas width_34 [simp] =
  field_map_parts(34) [OF map_entries_runs, unfolded ts_field_map_entries_34_def entry_simps run_length_simps]

lemmas width_35 [simp] =
  field_map_parts(35) [OF map_entries_runs, unfolded ts_field_map_entries_35_def entry_simps run_length_simps]

lemmas width_36 [simp] =
  field_map_parts(36) [OF map_entries_runs, unfolded ts_field_map_entries_36_def entry_simps run_length_simps]

lemmas width_37 [simp] =
  field_map_parts(37) [OF map_entries_runs, unfolded ts_field_map_entries_37_def entry_simps run_length_simps]

lemmas width_38 [simp] =
  field_map_parts(38) [OF map_entries_runs, unfolded ts_field_map_entries_38_def entry_simps run_length_simps]

lemmas width_39 [simp] =
  field_map_parts(39) [OF map_entries_runs, unfolded ts_field_map_entries_39_def entry_simps run_length_simps]

lemmas width_40 [simp] =
  field_map_parts(40) [OF map_entries_runs, unfolded ts_field_map_entries_40_def entry_simps run_length_simps]

lemmas width_41 [simp] =
  field_map_parts(41) [OF map_entries_runs, unfolded ts_field_map_entries_41_def entry_simps run_length_simps]

lemmas width_42 [simp] =
  field_map_parts(42) [OF map_entries_runs, unfolded ts_field_map_entries_42_def entry_simps run_length_simps]

lemmas width_43 [simp] =
  field_map_parts(43) [OF map_entries_runs, unfolded ts_field_map_entries_43_def entry_simps run_length_simps]

lemmas width_44 [simp] =
  field_map_parts(44) [OF map_entries_runs, unfolded ts_field_map_entries_44_def entry_simps run_length_simps]

lemmas width_45 [simp] =
  field_map_parts(45) [OF map_entries_runs, unfolded ts_field_map_entries_45_def entry_simps run_length_simps]

lemmas width_46 [simp] =
  field_map_parts(46) [OF map_entries_runs, unfolded ts_field_map_entries_46_def entry_simps run_length_simps]

lemmas width_47 [simp] =
  field_map_parts(47) [OF map_entries_runs, unfolded ts_field_map_entries_47_def entry_simps run_length_simps]

lemmas width_48 [simp] =
  field_map_parts(48) [OF map_entries_runs, unfolded ts_field_map_entries_48_def entry_simps run_length_simps]

lemmas width_49 [simp] =
  field_map_parts(49) [OF map_entries_runs, unfolded ts_field_map_entries_49_def entry_simps run_length_simps]

lemmas width_50 [simp] =
  field_map_parts(50) [OF map_entries_runs, unfolded ts_field_map_entries_50_def entry_simps run_length_simps]

lemmas width_51 [simp] =
  field_map_parts(51) [OF map_entries_runs, unfolded ts_field_map_entries_51_def entry_simps run_length_simps]

lemmas width_52 [simp] =
  field_map_parts(52) [OF map_entries_runs, unfolded ts_field_map_entries_52_def entry_simps run_length_simps]

lemmas width_53 [simp] =
  field_map_parts(53) [OF map_entries_runs, unfolded ts_field_map_entries_53_def entry_simps run_length_simps]

lemmas width_54 [simp] =
  field_map_parts(54) [OF map_entries_runs, unfolded ts_field_map_entries_54_def entry_simps run_length_simps]

lemmas width_55 [simp] =
  field_map_parts(55) [OF map_entries_runs, unfolded ts_field_map_entries_55_def entry_simps run_length_simps]

lemmas width_56 [simp] =
  field_map_parts(56) [OF map_entries_runs, unfolded ts_field_map_entries_56_def entry_simps run_length_simps]

lemmas width_57 [simp] =
  field_map_parts(57) [OF map_entries_runs, unfolded ts_field_map_entries_57_def entry_simps run_length_simps]

lemmas width_58 [simp] =
  field_map_parts(58) [OF map_entries_runs, unfolded ts_field_map_entries_58_def entry_simps run_length_simps]

lemmas width_59 [simp] =
  field_map_parts(59) [OF map_entries_runs, unfolded ts_field_map_entries_59_def entry_simps run_length_simps]

lemmas width_60 [simp] =
  field_map_parts(60) [OF map_entries_runs, unfolded ts_field_map_entries_60_def entry_simps run_length_simps]

lemmas width_61 [simp] =
  field_map_parts(61) [OF map_entries_runs, unfolded ts_field_map_entries_61_def entry_simps run_length_simps]

lemmas width_62 [simp] =
  field_map_parts(62) [OF map_entries_runs, unfolded ts_field_map_entries_62_def entry_simps run_length_simps]

lemmas width_63 [simp] =
  field_map_parts(63) [OF map_entries_runs, unfolded ts_field_map_entries_63_def entry_simps run_length_simps]

lemmas width_64 [simp] =
  field_map_parts(64) [OF map_entries_runs, unfolded ts_field_map_entries_64_def entry_simps run_length_simps]

lemmas width_65 [simp] =
  field_map_parts(65) [OF map_entries_runs, unfolded ts_field_map_entries_65_def entry_simps run_length_simps]

lemmas width_66 [simp] =
  field_map_parts(66) [OF map_entries_runs, unfolded ts_field_map_entries_66_def entry_simps run_length_simps]

lemmas width_67 [simp] =
  field_map_parts(67) [OF map_entries_runs, unfolded ts_field_map_entries_67_def entry_simps run_length_simps]

lemmas width_68 [simp] =
  field_map_parts(68) [OF map_entries_runs, unfolded ts_field_map_entries_68_def entry_simps run_length_simps]

lemmas width_69 [simp] =
  field_map_parts(69) [OF map_entries_runs, unfolded ts_field_map_entries_69_def entry_simps run_length_simps]

lemmas width_70 [simp] =
  field_map_parts(70) [OF map_entries_runs, unfolded ts_field_map_entries_70_def entry_simps run_length_simps]

lemmas width_71 [simp] =
  field_map_parts(71) [OF map_entries_runs, unfolded ts_field_map_entries_71_def entry_simps run_length_simps]

lemmas width_72 [simp] =
  field_map_parts(72) [OF map_entries_runs, unfolded ts_field_map_entries_72_def entry_simps run_length_simps]

lemmas width_73 [simp] =
  field_map_parts(73) [OF map_entries_runs, unfolded ts_field_map_entries_73_def entry_simps run_length_simps]

lemmas width_74 [simp] =
  field_map_parts(74) [OF map_entries_runs, unfolded ts_field_map_entries_74_def entry_simps run_length_simps]

lemmas width_75 [simp] =
  field_map_parts(75) [OF map_entries_runs, unfolded ts_field_map_entries_75_def entry_simps run_length_simps]

lemmas width_76 [simp] =
  field_map_parts(76) [OF map_entries_runs, unfolded ts_field_map_entries_76_def entry_simps run_length_simps]

lemmas width_77 [simp] =
  field_map_parts(77) [OF map_entries_runs, unfolded ts_field_map_entries_77_def entry_simps run_length_simps]

lemmas width_78 [simp] =
  field_map_parts(78) [OF map_entries_runs, unfolded ts_field_map_entries_78_def entry_simps run_length_simps]

lemmas width_79 [simp] =
  field_map_parts(79) [OF map_entries_runs, unfolded ts_field_map_entries_79_def entry_simps run_length_simps]

lemmas width_80 [simp] =
  field_map_parts(80) [OF map_entries_runs, unfolded ts_field_map_entries_80_def entry_simps run_length_simps]

lemmas width_81 [simp] =
  field_map_parts(81) [OF map_entries_runs, unfolded ts_field_map_entries_81_def entry_simps run_length_simps]

lemmas width_82 [simp] =
  field_map_parts(82) [OF map_entries_runs, unfolded ts_field_map_entries_82_def entry_simps run_length_simps]

lemmas width_83 [simp] =
  field_map_parts(83) [OF map_entries_runs, unfolded ts_field_map_entries_83_def entry_simps run_length_simps]

lemmas width_84 [simp] =
  field_map_parts(84) [OF map_entries_runs, unfolded ts_field_map_entries_84_def entry_simps run_length_simps]

lemmas width_85 [simp] =
  field_map_parts(85) [OF map_entries_runs, unfolded ts_field_map_entries_85_def entry_simps run_length_simps]

lemmas width_86 [simp] =
  field_map_parts(86) [OF map_entries_runs, unfolded ts_field_map_entries_86_def entry_simps run_length_simps]

lemmas width_87 [simp] =
  field_map_parts(87) [OF map_entries_runs, unfolded ts_field_map_entries_87_def entry_simps run_length_simps]

lemmas width_88 [simp] =
  field_map_parts(88) [OF map_entries_runs, unfolded ts_field_map_entries_88_def entry_simps run_length_simps]

lemmas width_89 [simp] =
  field_map_parts(89) [OF map_entries_runs, unfolded ts_field_map_entries_89_def entry_simps run_length_simps]

lemmas width_90 [simp] =
  field_map_parts(90) [OF map_entries_runs, unfolded ts_field_map_entries_90_def entry_simps run_length_simps]

lemmas width_91 [simp] =
  field_map_parts(91) [OF map_entries_runs, unfolded ts_field_map_entries_91_def entry_simps run_length_simps]

lemmas width_92 [simp] =
  field_map_parts(92) [OF map_entries_runs, unfolded ts_field_map_entries_92_def entry_simps run_length_simps]

lemmas width_93 [simp] =
  field_map_parts(93) [OF map_entries_runs, unfolded ts_field_map_entries_93_def entry_simps run_length_simps]

lemmas width_94 [simp] =
  field_map_parts(94) [OF map_entries_runs, unfolded ts_field_map_entries_94_def entry_simps run_length_simps]

lemmas width_95 [simp] =
  field_map_parts(95) [OF map_entries_runs, unfolded ts_field_map_entries_95_def entry_simps run_length_simps]

lemmas width_96 [simp] =
  field_map_parts(96) [OF map_entries_runs, unfolded ts_field_map_entries_96_def entry_simps run_length_simps]

lemmas width_97 [simp] =
  field_map_parts(97) [OF map_entries_runs, unfolded ts_field_map_entries_97_def entry_simps run_length_simps]

lemmas width_98 [simp] =
  field_map_parts(98) [OF map_entries_runs, unfolded ts_field_map_entries_98_def entry_simps run_length_simps]

lemmas width_99 [simp] =
  field_map_parts(99) [OF map_entries_runs, unfolded ts_field_map_entries_99_def entry_simps run_length_simps]

lemmas width_100 [simp] =
  field_map_parts(100) [OF map_entries_runs, unfolded ts_field_map_entries_100_def entry_simps run_length_simps]

lemmas width_101 [simp] =
  field_map_parts(101) [OF map_entries_runs, unfolded ts_field_map_entries_101_def entry_simps run_length_simps]

lemmas width_102 [simp] =
  field_map_parts(102) [OF map_entries_runs, unfolded ts_field_map_entries_102_def entry_simps run_length_simps]

lemmas width_103 [simp] =
  field_map_parts(103) [OF map_entries_runs, unfolded ts_field_map_entries_103_def entry_simps run_length_simps]

lemmas width_104 [simp] =
  field_map_parts(104) [OF map_entries_runs, unfolded ts_field_map_entries_104_def entry_simps run_length_simps]

lemmas width_105 [simp] =
  field_map_parts(105) [OF map_entries_runs, unfolded ts_field_map_entries_105_def entry_simps run_length_simps]

lemmas width_106 [simp] =
  field_map_parts(106) [OF map_entries_runs, unfolded ts_field_map_entries_106_def entry_simps run_length_simps]

lemmas width_107 [simp] =
  field_map_parts(107) [OF map_entries_runs, unfolded ts_field_map_entries_107_def entry_simps run_length_simps]

lemmas width_108 [simp] =
  field_map_parts(108) [OF map_entries_runs, unfolded ts_field_map_entries_108_def entry_simps run_length_simps]

lemmas width_109 [simp] =
  field_map_parts(109) [OF map_entries_runs, unfolded ts_field_map_entries_109_def entry_simps run_length_simps]

lemmas width_110 [simp] =
  field_map_parts(110) [OF map_entries_runs, unfolded ts_field_map_entries_110_def entry_simps run_length_simps]

lemmas width_111 [simp] =
  field_map_parts(111) [OF map_entries_runs, unfolded ts_field_map_entries_111_def entry_simps run_length_simps]

lemmas width_112 [simp] =
  field_map_parts(112) [OF map_entries_runs, unfolded ts_field_map_entries_112_def entry_simps run_length_simps]

lemmas width_113 [simp] =
  field_map_parts(113) [OF map_entries_runs, unfolded ts_field_map_entries_113_def entry_simps run_length_simps]

lemmas width_114 [simp] =
  field_map_parts(114) [OF map_entries_runs, unfolded ts_field_map_entries_114_def entry_simps run_length_simps]

lemmas width_115 [simp] =
  field_map_parts(115) [OF map_entries_runs, unfolded ts_field_map_entries_115_def entry_simps run_length_simps]

lemmas width_116 [simp] =
  field_map_parts(116) [OF map_entries_runs, unfolded ts_field_map_entries_116_def entry_simps run_length_simps]

lemmas width_117 [simp] =
  field_map_parts(117) [OF map_entries_runs, unfolded ts_field_map_entries_117_def entry_simps run_length_simps]

lemma reduce_counts_1_fit: "list_all2 counts_fit ts_field_map_slices_1 reduce_counts_1"
  unfolding ts_field_map_slices_1_def reduce_counts_1_def
  by (simp add: counts_fit_pair del: One_nat_def cong: list_all2_counts_weak)

lemma reduce_counts_2_fit: "list_all2 counts_fit ts_field_map_slices_2 reduce_counts_2"
  unfolding ts_field_map_slices_2_def reduce_counts_2_def
  by (simp add: counts_fit_pair del: One_nat_def cong: list_all2_counts_weak)

lemma reduce_counts_3_fit: "list_all2 counts_fit ts_field_map_slices_3 reduce_counts_3"
  unfolding ts_field_map_slices_3_def reduce_counts_3_def
  by (simp add: counts_fit_pair del: One_nat_def cong: list_all2_counts_weak)

lemma reduce_counts_4_fit: "list_all2 counts_fit ts_field_map_slices_4 reduce_counts_4"
  unfolding ts_field_map_slices_4_def reduce_counts_4_def
  by (simp add: counts_fit_pair del: One_nat_def cong: list_all2_counts_weak)

lemma reduce_counts_5_fit: "list_all2 counts_fit ts_field_map_slices_5 reduce_counts_5"
  unfolding ts_field_map_slices_5_def reduce_counts_5_def
  by (simp add: counts_fit_pair del: One_nat_def cong: list_all2_counts_weak)

lemma reduce_counts_6_fit: "list_all2 counts_fit ts_field_map_slices_6 reduce_counts_6"
  unfolding ts_field_map_slices_6_def reduce_counts_6_def
  by (simp add: counts_fit_pair del: One_nat_def cong: list_all2_counts_weak)

lemma reduce_counts_7_fit: "list_all2 counts_fit ts_field_map_slices_7 reduce_counts_7"
  unfolding ts_field_map_slices_7_def reduce_counts_7_def
  by (simp add: counts_fit_pair del: One_nat_def cong: list_all2_counts_weak)

lemma reduce_counts_8_fit: "list_all2 counts_fit ts_field_map_slices_8 reduce_counts_8"
  unfolding ts_field_map_slices_8_def reduce_counts_8_def
  by (simp add: counts_fit_pair del: One_nat_def cong: list_all2_counts_weak)

lemma reduce_counts_9_fit: "list_all2 counts_fit ts_field_map_slices_9 reduce_counts_9"
  unfolding ts_field_map_slices_9_def reduce_counts_9_def
  by (simp add: counts_fit_pair del: One_nat_def cong: list_all2_counts_weak)

lemma reduce_counts_10_fit: "list_all2 counts_fit ts_field_map_slices_10 reduce_counts_10"
  unfolding ts_field_map_slices_10_def reduce_counts_10_def
  by (simp add: counts_fit_pair del: One_nat_def cong: list_all2_counts_weak)

lemma reduce_counts_11_fit: "list_all2 counts_fit ts_field_map_slices_11 reduce_counts_11"
  unfolding ts_field_map_slices_11_def reduce_counts_11_def
  by (simp add: counts_fit_pair del: One_nat_def cong: list_all2_counts_weak)

lemma reduce_counts_12_fit: "list_all2 counts_fit ts_field_map_slices_12 reduce_counts_12"
  unfolding ts_field_map_slices_12_def reduce_counts_12_def
  by (simp add: counts_fit_pair del: One_nat_def cong: list_all2_counts_weak)

lemma reduce_counts_13_fit: "list_all2 counts_fit ts_field_map_slices_13 reduce_counts_13"
  unfolding ts_field_map_slices_13_def reduce_counts_13_def
  by (simp add: counts_fit_pair del: One_nat_def cong: list_all2_counts_weak)

lemma reduce_counts_14_fit: "list_all2 counts_fit ts_field_map_slices_14 reduce_counts_14"
  unfolding ts_field_map_slices_14_def reduce_counts_14_def
  by (simp add: counts_fit_pair del: One_nat_def cong: list_all2_counts_weak)

lemma reduce_counts_15_fit: "list_all2 counts_fit ts_field_map_slices_15 reduce_counts_15"
  unfolding ts_field_map_slices_15_def reduce_counts_15_def
  by (simp add: counts_fit_pair del: One_nat_def cong: list_all2_counts_weak)

lemma reduce_counts_16_fit: "list_all2 counts_fit ts_field_map_slices_16 reduce_counts_16"
  unfolding ts_field_map_slices_16_def reduce_counts_16_def
  by (simp add: counts_fit_pair del: One_nat_def cong: list_all2_counts_weak)

lemma reduce_counts_17_fit: "list_all2 counts_fit ts_field_map_slices_17 reduce_counts_17"
  unfolding ts_field_map_slices_17_def reduce_counts_17_def
  by (simp add: counts_fit_pair del: One_nat_def cong: list_all2_counts_weak)

lemma reduce_counts_18_fit: "list_all2 counts_fit ts_field_map_slices_18 reduce_counts_18"
  unfolding ts_field_map_slices_18_def reduce_counts_18_def
  by (simp add: counts_fit_pair del: One_nat_def cong: list_all2_counts_weak)

lemma reduce_counts_19_fit: "list_all2 counts_fit ts_field_map_slices_19 reduce_counts_19"
  unfolding ts_field_map_slices_19_def reduce_counts_19_def
  by (simp add: counts_fit_pair del: One_nat_def cong: list_all2_counts_weak)

lemma reduce_counts_fit: "list_all2 counts_fit field_slice_entries reduce_counts"
  unfolding field_slice_entries_def reduce_counts_def
  by (intro list_all2_appendI
        reduce_counts_1_fit reduce_counts_2_fit reduce_counts_3_fit reduce_counts_4_fit
        reduce_counts_5_fit reduce_counts_6_fit reduce_counts_7_fit reduce_counts_8_fit
        reduce_counts_9_fit reduce_counts_10_fit reduce_counts_11_fit reduce_counts_12_fit
        reduce_counts_13_fit reduce_counts_14_fit reduce_counts_15_fit reduce_counts_16_fit
        reduce_counts_17_fit reduce_counts_18_fit reduce_counts_19_fit)

lemma reduce_counts_slice:
  assumes "(p, cs) \<in> set reduce_counts"
  obtains s where "(p, s) \<in> set field_slice_entries" "list_all (\<lambda>c. slice_within c s) cs"
proof -
  obtain k where k: "k < length reduce_counts" "reduce_counts ! k = (p, cs)"
    using assms by (auto simp: in_set_conv_nth)
  then have len: "k < length field_slice_entries"
    using list_all2_lengthD[OF reduce_counts_fit] by simp
  obtain q s where entry: "field_slice_entries ! k = (q, s)"
    by (cases "field_slice_entries ! k")
  then have "counts_fit (q, s) (p, cs)"
    using list_all2_nthD2[OF reduce_counts_fit k(1)] k(2) by simp
  then show ?thesis
    using that[of s] nth_mem[OF len] entry by (simp add: counts_fit_pair)
qed

lemma reduce_counts_keys: "map fst reduce_counts = map fst field_slice_entries"
proof -
  have "list_all2 counts_fit ss cs \<Longrightarrow> map fst cs = map fst ss" for ss cs
    by (induction rule: list_all2_induct) (auto simp: counts_fit_def)
  then show ?thesis
    using reduce_counts_fit by blast
qed

lemma slice_entry_less: "(p, s) \<in> set field_slice_entries \<Longrightarrow> p < 2855"
  using field_slices_increasing increasing_bounds by fastforce

lemma fields_within:
  assumes "(p, cs) \<in> set reduce_counts" and "c \<in> set cs"
  shows "0 < c" "c \<le> 17" "p < 2855" "\<forall>e \<in> set (production_fields p). child_index e < c"
proof -
  obtain s where s: "(p, s) \<in> set field_slice_entries" "list_all (\<lambda>c. slice_within c s) cs"
    by (rule reduce_counts_slice[OF assms(1)])
  then have "slice_within c s" "ts_field_map_slices ! p = s"
    using assms(2) slices.table_at by (auto simp: list_all_iff)
  then show "0 < c" "c \<le> 17" "p < 2855" "\<forall>e \<in> set (production_fields p). child_index e < c"
    using slice_entry_less[OF s(1)] by (auto simp: slice_within_def production_fields_def list_all_iff)
qed

section \<open>The productions with no field\<close>

lemma early_slices:
  assumes "(p, s) \<in> set field_slice_entries" and "p < 169"
  shows "(p, s) \<in> set ts_field_map_slices_1"
proof -
  obtain rest where rest: "field_slice_entries = ts_field_map_slices_1 @ rest"
    by (simp add: field_slice_entries_def)
  from field_slices_increasing have "increasing_from (after_designators 0 ts_field_map_slices_1) rest"
    unfolding rest increasing_append by blast
  then have "increasing_from 169 rest"
    by (simp only: field_slices_1)
  then have "(p, s) \<notin> set rest"
    using increasing_bounds assms(2) by fastforce
  then show ?thesis
    using assms(1) unfolding rest set_append by blast
qed

definition no_fields :: "nat \<Rightarrow> bool" where
  "no_fields p \<longleftrightarrow> p \<in> {0, 1, 6, 15, 24} \<or> 117 \<le> p \<and> p \<le> 130"

lemma early_fields: "list_all (\<lambda>(p, s). \<not> no_fields p) ts_field_map_slices_1"
  unfolding ts_field_map_slices_1_def by (simp add: no_fields_def cong: list_all_weak)

lemma fieldless: "list_all (\<lambda>(p, cs). no_fields p) fieldless_counts"
  by (simp add: fieldless_counts_def no_fields_def)

lemma fieldless_less: "list_all (\<lambda>(p, cs). p < 169 \<and> list_all (\<lambda>c. c \<le> 17 \<and> (p \<noteq> 0 \<longrightarrow> 0 < c)) cs) fieldless_counts"
  by (simp add: fieldless_counts_def)

lemma fieldless_fields:
  assumes "(p, cs) \<in> set fieldless_counts"
  shows "production_fields p = []"
proof -
  have p: "p < 169" "p < PRODUCTION_ID_COUNT"
    using assms fieldless_less by (auto simp: list_all_iff PRODUCTION_ID_COUNT_def)
  have "(p, ts_field_map_slices ! p) \<notin> set field_slice_entries"
    using early_slices[OF _ p(1)] fieldless early_fields assms by (force simp: list_all_iff)
  then have "ts_field_map_slices ! p = Slice 0 0"
    using designated_cases[OF p(2), of "Slice 0 0" field_slice_entries] by (simp add: slices.table)
  then show ?thesis
    by (simp add: production_fields_def slice_of_def)
qed

section \<open>The aliases of a production\<close>

lemma alias_children:
  "list_all (\<lambda>(p, as). list_all (\<lambda>(i, a). a = 0 \<or> i = 0 \<and> p \<noteq> 0 \<or> i = 2 \<and> (p = 44 \<or> p = 105)) as) alias_entries"
  by (simp add: alias_entries_def)

lemma alias_place:
  assumes "p < PRODUCTION_ID_COUNT" and "i < MAX_ALIAS_SEQUENCE_LENGTH" and "ts_alias_sequences ! p ! i \<noteq> 0"
  shows "i = 0 \<and> p \<noteq> 0 \<or> i = 2 \<and> (p = 44 \<or> p = 105)"
proof -
  obtain as where as: "ts_alias_sequences ! p = alias_row as" "as = [] \<or> (p, as) \<in> set alias_entries"
    using designated_cases[OF assms(1), of "alias_row []" "map (map_prod id alias_row) alias_entries"]
    by (auto simp: aliases.table)
  then have "(i, alias_row as ! i) \<in> set as" "alias_row as ! i \<noteq> 0"
    using designated_cases[OF assms(2), of 0 as] assms(3) by (auto simp: alias_row_def)
  with as(2) show ?thesis
    using alias_children by (fastforce simp: list_all_iff)
qed

lemma reduce_counts_44_105: "(44, [3]) \<in> set reduce_counts" "(105, [3]) \<in> set reduce_counts"
  by (simp_all add: reduce_counts_def reduce_counts_1_def)

lemma aliases_within:
  assumes "(p, cs) \<in> set reduce_counts" and "c \<in> set cs" and "i < MAX_ALIAS_SEQUENCE_LENGTH"
    and "ts_alias_sequences ! p ! i \<noteq> 0"
  shows "i < c"
proof -
  have "distinct (map fst reduce_counts)"
    using increasing_distinct[OF field_slices_increasing[THEN conjunct1]] by (simp add: reduce_counts_keys)
  then have "p = 44 \<Longrightarrow> cs = [3]" "p = 105 \<Longrightarrow> cs = [3]"
    using assms(1) reduce_counts_44_105 by (auto dest: eq_key_imp_eq_value)
  moreover have "p < PRODUCTION_ID_COUNT"
    using fields_within(3)[OF assms(1,2)] by (simp add: PRODUCTION_ID_COUNT_def)
  ultimately show ?thesis
    using alias_place[OF _ assms(3,4)] fields_within(1)[OF assms(1,2)] assms(2) by auto
qed

section \<open>Every reduction has the children of its production\<close>

lemma reduce_counts_ok: "list_all (\<lambda>(p, cs). list_all (\<lambda>c. reduce_ok c p) cs) reduce_counts"
  using fields_within aliases_within
  by (fastforce simp: list_all_iff reduce_ok_def children_within_def MAX_ALIAS_SEQUENCE_LENGTH_def PRODUCTION_ID_COUNT_def)

lemma fieldless_counts_ok: "list_all (\<lambda>(p, cs). list_all (\<lambda>c. reduce_ok c p) cs) fieldless_counts"
proof -
  have "reduce_ok c p" if "(p, cs) \<in> set fieldless_counts" "c \<in> set cs" for p cs c
  proof -
    have p: "p < 169" "c \<le> 17" "p \<noteq> 0 \<longrightarrow> 0 < c"
      using that fieldless_less by (auto simp: list_all_iff)
    then have "p < PRODUCTION_ID_COUNT" "p \<noteq> 44" "p \<noteq> 105"
      using that(1) by (auto simp: PRODUCTION_ID_COUNT_def fieldless_counts_def)
    then show ?thesis
      using p alias_place[of p] fieldless_fields[OF that(1)]
      by (fastforce simp: reduce_ok_def children_within_def MAX_ALIAS_SEQUENCE_LENGTH_def)
  qed
  then show ?thesis
    by (auto simp: list_all_iff)
qed

lemma reduce_count_parts:
  assumes "list_all P reduce_counts"
  shows
    "list_all P reduce_counts_1" "list_all P reduce_counts_2" "list_all P reduce_counts_3"
    "list_all P reduce_counts_4" "list_all P reduce_counts_5" "list_all P reduce_counts_6"
    "list_all P reduce_counts_7" "list_all P reduce_counts_8" "list_all P reduce_counts_9"
    "list_all P reduce_counts_10" "list_all P reduce_counts_11" "list_all P reduce_counts_12"
    "list_all P reduce_counts_13" "list_all P reduce_counts_14" "list_all P reduce_counts_15"
    "list_all P reduce_counts_16" "list_all P reduce_counts_17" "list_all P reduce_counts_18"
    "list_all P reduce_counts_19"
  using assms unfolding reduce_counts_def list_all_append by - (elim conjE, assumption)+

lemmas reduce_ok_1 [simp] =
  reduce_count_parts(1) [OF reduce_counts_ok, unfolded reduce_counts_1_def entry_simps]

lemmas reduce_ok_2 [simp] =
  reduce_count_parts(2) [OF reduce_counts_ok, unfolded reduce_counts_2_def entry_simps]

lemmas reduce_ok_3 [simp] =
  reduce_count_parts(3) [OF reduce_counts_ok, unfolded reduce_counts_3_def entry_simps]

lemmas reduce_ok_4 [simp] =
  reduce_count_parts(4) [OF reduce_counts_ok, unfolded reduce_counts_4_def entry_simps]

lemmas reduce_ok_5 [simp] =
  reduce_count_parts(5) [OF reduce_counts_ok, unfolded reduce_counts_5_def entry_simps]

lemmas reduce_ok_6 [simp] =
  reduce_count_parts(6) [OF reduce_counts_ok, unfolded reduce_counts_6_def entry_simps]

lemmas reduce_ok_7 [simp] =
  reduce_count_parts(7) [OF reduce_counts_ok, unfolded reduce_counts_7_def entry_simps]

lemmas reduce_ok_8 [simp] =
  reduce_count_parts(8) [OF reduce_counts_ok, unfolded reduce_counts_8_def entry_simps]

lemmas reduce_ok_9 [simp] =
  reduce_count_parts(9) [OF reduce_counts_ok, unfolded reduce_counts_9_def entry_simps]

lemmas reduce_ok_10 [simp] =
  reduce_count_parts(10) [OF reduce_counts_ok, unfolded reduce_counts_10_def entry_simps]

lemmas reduce_ok_11 [simp] =
  reduce_count_parts(11) [OF reduce_counts_ok, unfolded reduce_counts_11_def entry_simps]

lemmas reduce_ok_12 [simp] =
  reduce_count_parts(12) [OF reduce_counts_ok, unfolded reduce_counts_12_def entry_simps]

lemmas reduce_ok_13 [simp] =
  reduce_count_parts(13) [OF reduce_counts_ok, unfolded reduce_counts_13_def entry_simps]

lemmas reduce_ok_14 [simp] =
  reduce_count_parts(14) [OF reduce_counts_ok, unfolded reduce_counts_14_def entry_simps]

lemmas reduce_ok_15 [simp] =
  reduce_count_parts(15) [OF reduce_counts_ok, unfolded reduce_counts_15_def entry_simps]

lemmas reduce_ok_16 [simp] =
  reduce_count_parts(16) [OF reduce_counts_ok, unfolded reduce_counts_16_def entry_simps]

lemmas reduce_ok_17 [simp] =
  reduce_count_parts(17) [OF reduce_counts_ok, unfolded reduce_counts_17_def entry_simps]

lemmas reduce_ok_18 [simp] =
  reduce_count_parts(18) [OF reduce_counts_ok, unfolded reduce_counts_18_def entry_simps]

lemmas reduce_ok_19 [simp] =
  reduce_count_parts(19) [OF reduce_counts_ok, unfolded reduce_counts_19_def entry_simps]

lemmas reduce_ok_fieldless [simp] = fieldless_counts_ok [unfolded fieldless_counts_def entry_simps]

end
