(* ===== verification/Action_Table_1.thy ===== *)
theory Action_Table_1
  imports Reduce_Counts Parse_Cells
begin

text \<open>
  The groups of \<open>ts_parse_actions\<close> in \<open>src/crates/tree-sitter/src/parser.c\<close> from index 0 to 7709, each
  with the check that it is one.
\<close>

text \<open>Lines 480721 to 480870.\<close>

definition ts_parse_actions_1 :: "(nat \<times> TSParseActionEntry list) list" where
  "ts_parse_actions_1 =
    [(0, [Entry 0 False]), (1, [Entry 1 False, RECOVER]), (3, [Entry 1 True, SHIFT_EXTRA]),
     (5, [Entry 1 True, REDUCE sym_source_file 0 0 0]), (7, [Entry 1 False, SHIFT 7776]),
     (9, [Entry 1 True, SHIFT 7502]), (11, [Entry 1 True, SHIFT 7531]),
     (13, [Entry 1 True, SHIFT 7522]), (15, [Entry 1 True, SHIFT 7533]),
     (17, [Entry 1 True, SHIFT 7873]), (19, [Entry 1 False, SHIFT 7661]),
     (21, [Entry 1 True, SHIFT 8052]), (23, [Entry 1 True, SHIFT 7999]),
     (25, [Entry 1 True, SHIFT 10271]), (27, [Entry 1 True, SHIFT 8389]),
     (29, [Entry 1 True, SHIFT 8413]), (31, [Entry 1 True, SHIFT 7934]),
     (33, [Entry 1 True, SHIFT 8104]), (35, [Entry 1 False, SHIFT 2020]),
     (37, [Entry 1 False, SHIFT 2017]), (39, [Entry 1 False, SHIFT 2001]),
     (41, [Entry 1 False, REDUCE sym_ERR_empty_right_hand_assignment 1 0 0]),
     (43, [Entry 1 True, SHIFT 58]),
     (45, [Entry 1 True, REDUCE sym_ERR_empty_right_hand_assignment 1 0 0]),
     (47, [Entry 1 False, SHIFT 2119]), (49, [Entry 1 True, SHIFT 2111]),
     (51, [Entry 1 True, SHIFT 2122]), (53, [Entry 1 True, SHIFT 2109]),
     (55, [Entry 1 True, SHIFT 7883]), (57, [Entry 1 False, SHIFT 2113]),
     (59, [Entry 1 True, SHIFT 2065]), (61, [Entry 1 True, SHIFT 8039]),
     (63, [Entry 1 False, SHIFT 2450]), (65, [Entry 1 True, SHIFT 8045]),
     (67, [Entry 1 True, SHIFT 9103]), (69, [Entry 1 True, SHIFT 9137]),
     (71, [Entry 1 True, SHIFT 8156]), (73, [Entry 1 True, SHIFT 8159]),
     (75, [Entry 1 True, SHIFT 8161]), (77, [Entry 1 True, SHIFT 8173]),
     (79, [Entry 1 False, SHIFT 2350]), (81, [Entry 1 False, SHIFT 2356]),
     (83, [Entry 1 False, SHIFT 2360]), (85, [Entry 1 False, SHIFT 2342]),
     (87, [Entry 1 False, SHIFT 2351]), (89, [Entry 1 False, SHIFT 2349]),
     (91, [Entry 1 True, SHIFT 10440]), (93, [Entry 1 False, SHIFT 2096]),
     (95, [Entry 1 False, SHIFT 9226]), (97, [Entry 1 True, SHIFT 9242]),
     (99, [Entry 1 True, SHIFT 2450]), (101, [Entry 1 False, SHIFT 1134]),
     (103, [Entry 1 False, SHIFT 1129]), (105, [Entry 1 False, SHIFT 1110]),
     (107, [Entry 1 True, SHIFT 78]), (109, [Entry 1 False, SHIFT 1199]),
     (111, [Entry 1 True, SHIFT 1200]), (113, [Entry 1 True, SHIFT 1201]),
     (115, [Entry 1 True, SHIFT 1202]), (117, [Entry 1 True, SHIFT 7878]),
     (119, [Entry 1 False, SHIFT 1203]), (121, [Entry 1 True, SHIFT 1216]),
     (123, [Entry 1 True, SHIFT 8000]), (125, [Entry 1 True, SHIFT 8001]),
     (127, [Entry 1 True, SHIFT 10041]), (129, [Entry 1 True, SHIFT 10042]),
     (131, [Entry 1 True, SHIFT 8169]), (133, [Entry 1 True, SHIFT 8170]),
     (135, [Entry 1 True, SHIFT 8172]), (137, [Entry 1 True, SHIFT 8177]),
     (139, [Entry 1 True, SHIFT 10497]), (141, [Entry 1 False, SHIFT 1164]),
     (143, [Entry 1 False, SHIFT 10541]), (145, [Entry 1 True, SHIFT 10449]),
     (147, [Entry 1 False, SHIFT 3297]), (149, [Entry 1 True, SHIFT 30]),
     (151, [Entry 1 False, SHIFT 3344]), (153, [Entry 1 True, SHIFT 4]),
     (155, [Entry 1 True, SHIFT 7458]), (157, [Entry 1 True, SHIFT 7983]),
     (159, [Entry 1 True, SHIFT 6]), (161, [Entry 1 True, SHIFT 7453]),
     (163, [Entry 1 False, SHIFT 2321]), (165, [Entry 1 False, SHIFT 3118]),
     (167, [Entry 1 False, SHIFT 2328]), (169, [Entry 1 False, SHIFT 3167]),
     (171, [Entry 1 False, SHIFT 2325]), (173, [Entry 1 False, SHIFT 2152]),
     (175, [Entry 1 False, SHIFT 2319]), (177, [Entry 1 False, SHIFT 2303]),
     (179, [Entry 2 False, REDUCE aux_sym_case_stmt_repeat1 2 0 0, SHIFT_REPEAT 2020]),
     (182, [Entry 2 False, REDUCE aux_sym_case_stmt_repeat1 2 0 0, SHIFT_REPEAT 2017]),
     (185, [Entry 2 False, REDUCE aux_sym_case_stmt_repeat1 2 0 0, SHIFT_REPEAT 2001]),
     (188, [Entry 2 True, REDUCE aux_sym_case_stmt_repeat1 2 0 0, SHIFT_REPEAT 58]),
     (191, [Entry 2 False, REDUCE aux_sym_case_stmt_repeat1 2 0 0, SHIFT_REPEAT 2119]),
     (194, [Entry 2 True, REDUCE aux_sym_case_stmt_repeat1 2 0 0, SHIFT_REPEAT 2111]),
     (197, [Entry 2 True, REDUCE aux_sym_case_stmt_repeat1 2 0 0, SHIFT_REPEAT 2122]),
     (200, [Entry 2 True, REDUCE aux_sym_case_stmt_repeat1 2 0 0, SHIFT_REPEAT 2109]),
     (203, [Entry 2 True, REDUCE aux_sym_case_stmt_repeat1 2 0 0, SHIFT_REPEAT 7883]),
     (206, [Entry 2 False, REDUCE aux_sym_case_stmt_repeat1 2 0 0, SHIFT_REPEAT 2113]),
     (209, [Entry 2 True, REDUCE aux_sym_case_stmt_repeat1 2 0 0, SHIFT_REPEAT 2065]),
     (212, [Entry 2 True, REDUCE aux_sym_case_stmt_repeat1 2 0 0, SHIFT_REPEAT 8039]),
     (215, [Entry 2 False, REDUCE aux_sym_case_stmt_repeat1 2 0 0, SHIFT_REPEAT 2450]),
     (218, [Entry 2 True, REDUCE aux_sym_case_stmt_repeat1 2 0 0, SHIFT_REPEAT 8045]),
     (221, [Entry 2 True, REDUCE aux_sym_case_stmt_repeat1 2 0 0, SHIFT_REPEAT 9103]),
     (224, [Entry 2 True, REDUCE aux_sym_case_stmt_repeat1 2 0 0, SHIFT_REPEAT 9137]),
     (227, [Entry 2 True, REDUCE aux_sym_case_stmt_repeat1 2 0 0, SHIFT_REPEAT 8156]),
     (230, [Entry 2 True, REDUCE aux_sym_case_stmt_repeat1 2 0 0, SHIFT_REPEAT 8159]),
     (233, [Entry 2 True, REDUCE aux_sym_case_stmt_repeat1 2 0 0, SHIFT_REPEAT 8161]),
     (236, [Entry 2 True, REDUCE aux_sym_case_stmt_repeat1 2 0 0, SHIFT_REPEAT 8173]),
     (239, [Entry 2 False, REDUCE aux_sym_case_stmt_repeat1 2 0 0, SHIFT_REPEAT 2350]),
     (242, [Entry 2 False, REDUCE aux_sym_case_stmt_repeat1 2 0 0, SHIFT_REPEAT 2356]),
     (245, [Entry 2 False, REDUCE aux_sym_case_stmt_repeat1 2 0 0, SHIFT_REPEAT 2360]),
     (248, [Entry 2 False, REDUCE aux_sym_case_stmt_repeat1 2 0 0, SHIFT_REPEAT 2342]),
     (251, [Entry 2 False, REDUCE aux_sym_case_stmt_repeat1 2 0 0, SHIFT_REPEAT 2351]),
     (254, [Entry 2 False, REDUCE aux_sym_case_stmt_repeat1 2 0 0, SHIFT_REPEAT 2349]),
     (257, [Entry 2 True, REDUCE aux_sym_case_stmt_repeat1 2 0 0, SHIFT_REPEAT 10440]),
     (260, [Entry 2 False, REDUCE aux_sym_case_stmt_repeat1 2 0 0, SHIFT_REPEAT 2096]),
     (263, [Entry 2 False, REDUCE aux_sym_case_stmt_repeat1 2 0 0, SHIFT_REPEAT 9226]),
     (266, [Entry 2 True, REDUCE aux_sym_case_stmt_repeat1 2 0 0, SHIFT_REPEAT 9242]),
     (269, [Entry 1 False, REDUCE aux_sym_case_stmt_repeat1 2 0 0]),
     (271, [Entry 2 True, REDUCE aux_sym_case_stmt_repeat1 2 0 0, SHIFT_REPEAT 2450]),
     (274, [Entry 1 True, SHIFT 8125]), (276, [Entry 1 False, SHIFT 3299]),
     (278, [Entry 1 True, SHIFT 7589]), (280, [Entry 1 False, SHIFT 3295]),
     (282, [Entry 1 True, SHIFT 2983]), (284, [Entry 1 False, SHIFT 2428]),
     (286, [Entry 1 True, SHIFT 1181]), (288, [Entry 1 True, SHIFT 2104]),
     (290, [Entry 1 True, SHIFT 2047]), (292, [Entry 1 True, SHIFT 9]),
     (294, [Entry 1 True, SHIFT 5]), (296, [Entry 1 True, SHIFT 8054]),
     (298, [Entry 1 False, SHIFT 2393]), (300, [Entry 1 False, SHIFT 7775]),
     (302, [Entry 1 False, SHIFT 7879]), (304, [Entry 1 False, SHIFT 2643]),
     (306, [Entry 1 False, SHIFT 2555]), (308, [Entry 1 False, SHIFT 7634]),
     (310, [Entry 1 True, SHIFT 2024]), (312, [Entry 1 True, SHIFT 9197]),
     (314, [Entry 1 False, SHIFT 7480]), (316, [Entry 1 False, SHIFT 7497]),
     (318, [Entry 1 False, SHIFT 7494]), (320, [Entry 1 False, SHIFT 3308]),
     (322, [Entry 1 False, SHIFT 7652]), (324, [Entry 1 False, SHIFT 7654]),
     (326, [Entry 1 False, SHIFT 7576]), (328, [Entry 1 False, SHIFT 7023])]"

lemma ts_parse_actions_1_tiled: "tiled_from 0 ts_parse_actions_1 \<and> after_runs 0 ts_parse_actions_1 = 330"
  unfolding ts_parse_actions_1_def by (simp cong: runs_weak)

lemma ts_parse_actions_1_ok: "list_all (\<lambda>(i, es). group_ok es) ts_parse_actions_1"
  unfolding ts_parse_actions_1_def
  by (simp add: group_ok_simps entry_action_ok_simps del: One_nat_def group_ok.simps cong: list_all_weak)

lemma row_actions_1_start: "map fst ts_parse_actions_1 = 0 # row_actions_1"
  by (simp add: row_actions_1_def ts_parse_actions_1_def)

text \<open>Lines 480871 to 481020.\<close>

definition ts_parse_actions_2 :: "(nat \<times> TSParseActionEntry list) list" where
  "ts_parse_actions_2 =
    [(330, [Entry 1 False, SHIFT 7499]), (332, [Entry 1 False, SHIFT 7898]),
     (334, [Entry 1 False, SHIFT 8127]), (336, [Entry 1 False, SHIFT 7220]),
     (338, [Entry 1 False, SHIFT 8119]), (340, [Entry 1 False, SHIFT 3150]),
     (342, [Entry 1 False, SHIFT 44]), (344, [Entry 1 False, SHIFT 89]),
     (346, [Entry 1 False, SHIFT 3369]), (348, [Entry 1 False, SHIFT 35]),
     (350, [Entry 1 False, SHIFT 2313]), (352, [Entry 1 False, SHIFT 9824]),
     (354, [Entry 1 False, SHIFT 2302]), (356, [Entry 1 False, SHIFT 3177]),
     (358, [Entry 1 False, SHIFT 8009]), (360, [Entry 1 False, SHIFT 8013]),
     (362, [Entry 1 False, SHIFT 7751]), (364, [Entry 1 False, SHIFT 7846]),
     (366, [Entry 1 False, SHIFT 6635]), (368, [Entry 1 False, SHIFT 7749]),
     (370, [Entry 1 False, SHIFT 7842]), (372, [Entry 1 False, SHIFT 4471]),
     (374, [Entry 1 False, SHIFT 7727]), (376, [Entry 1 False, SHIFT 7825]),
     (378, [Entry 1 False, SHIFT 7024]), (380, [Entry 1 False, SHIFT 7769]),
     (382, [Entry 1 False, SHIFT 7833]), (384, [Entry 1 False, SHIFT 6780]),
     (386, [Entry 1 False, SHIFT 7786]), (388, [Entry 1 False, SHIFT 5001]),
     (390, [Entry 1 False, SHIFT 7724]), (392, [Entry 1 False, SHIFT 3605]),
     (394, [Entry 1 False, SHIFT 7804]), (396, [Entry 1 False, SHIFT 6849]),
     (398, [Entry 1 False, SHIFT 7759]), (400, [Entry 1 False, SHIFT 7854]),
     (402, [Entry 1 False, SHIFT 6649]), (404, [Entry 1 False, SHIFT 7735]),
     (406, [Entry 1 False, SHIFT 3530]), (408, [Entry 1 False, SHIFT 7758]),
     (410, [Entry 1 False, SHIFT 3687]), (412, [Entry 1 False, SHIFT 7770]),
     (414, [Entry 1 False, SHIFT 4368]), (416, [Entry 1 False, SHIFT 7725]),
     (418, [Entry 1 False, SHIFT 6598]), (420, [Entry 1 False, SHIFT 7734]),
     (422, [Entry 1 False, SHIFT 6646]), (424, [Entry 1 False, SHIFT 7704]),
     (426, [Entry 1 False, SHIFT 6847]), (428, [Entry 1 False, SHIFT 7779]),
     (430, [Entry 1 False, SHIFT 7183]), (432, [Entry 1 False, SHIFT 7745]),
     (434, [Entry 1 False, SHIFT 6624]), (436, [Entry 1 False, SHIFT 7741]),
     (438, [Entry 1 False, SHIFT 7849]), (440, [Entry 1 False, SHIFT 7101]),
     (442, [Entry 1 False, SHIFT 7802]), (444, [Entry 1 False, SHIFT 3482]),
     (446, [Entry 1 False, SHIFT 7795]), (448, [Entry 1 False, SHIFT 3420]),
     (450, [Entry 1 False, SHIFT 7706]), (452, [Entry 1 False, SHIFT 3675]),
     (454, [Entry 1 False, SHIFT 7730]), (456, [Entry 1 False, SHIFT 7823]),
     (458, [Entry 1 False, SHIFT 4940]), (460, [Entry 1 False, SHIFT 7748]),
     (462, [Entry 1 False, SHIFT 5193]), (464, [Entry 1 False, SHIFT 7740]),
     (466, [Entry 1 False, SHIFT 5113]), (468, [Entry 1 False, SHIFT 7721]),
     (470, [Entry 1 False, SHIFT 3548]), (472, [Entry 1 False, SHIFT 7738]),
     (474, [Entry 1 False, SHIFT 6622]), (476, [Entry 1 False, SHIFT 7728]),
     (478, [Entry 1 False, SHIFT 4099]), (480, [Entry 1 False, SHIFT 7914]),
     (482, [Entry 1 False, SHIFT 7701]), (484, [Entry 1 False, SHIFT 6795]),
     (486, [Entry 1 False, SHIFT 7752]),
     (488, [Entry 1 False, REDUCE sym_ERR_implements_before_extends 2 0 0]),
     (490, [Entry 1 False, SHIFT 3447]), (492, [Entry 1 False, SHIFT 7176]),
     (494, [Entry 1 False, SHIFT 3784]), (496, [Entry 1 False, SHIFT 5062]),
     (498, [Entry 1 False, SHIFT 6821]), (500, [Entry 1 False, SHIFT 3415]),
     (502, [Entry 1 False, SHIFT 4226]), (504, [Entry 1 False, SHIFT 4285]),
     (506, [Entry 1 False, SHIFT 4329]), (508, [Entry 1 False, SHIFT 7063]),
     (510, [Entry 1 False, SHIFT 4417]), (512, [Entry 1 False, SHIFT 4695]),
     (514, [Entry 1 False, SHIFT 4918]), (516, [Entry 1 False, SHIFT 5084]),
     (518, [Entry 1 False, SHIFT 5184]), (520, [Entry 1 False, SHIFT 5238]),
     (522, [Entry 1 False, SHIFT 6582]), (524, [Entry 1 False, SHIFT 6640]),
     (526, [Entry 1 False, SHIFT 6666]), (528, [Entry 1 False, SHIFT 6728]),
     (530, [Entry 1 False, SHIFT 6748]), (532, [Entry 1 False, SHIFT 6764]),
     (534, [Entry 1 False, SHIFT 7104]), (536, [Entry 1 False, SHIFT 6806]),
     (538, [Entry 1 False, SHIFT 6989]), (540, [Entry 1 False, SHIFT 7020]),
     (542, [Entry 1 False, SHIFT 7080]), (544, [Entry 1 False, SHIFT 7099]),
     (546, [Entry 1 False, SHIFT 7120]), (548, [Entry 1 False, SHIFT 4637]),
     (550, [Entry 1 False, SHIFT 6845]), (552, [Entry 1 False, SHIFT 7072]),
     (554, [Entry 1 False, SHIFT 6551]), (556, [Entry 1 False, SHIFT 6570]),
     (558, [Entry 1 False, SHIFT 6607]), (560, [Entry 1 False, SHIFT 3501]),
     (562, [Entry 1 False, SHIFT 6664]), (564, [Entry 1 False, SHIFT 6871]),
     (566, [Entry 1 False, SHIFT 6931]), (568, [Entry 1 False, SHIFT 6951]),
     (570, [Entry 1 False, SHIFT 7056]), (572, [Entry 1 False, SHIFT 3472]),
     (574, [Entry 1 False, SHIFT 3537]), (576, [Entry 1 False, SHIFT 3562]),
     (578, [Entry 1 False, SHIFT 3751]), (580, [Entry 1 False, SHIFT 4032]),
     (582, [Entry 1 False, SHIFT 4057]), (584, [Entry 1 False, SHIFT 4112]),
     (586, [Entry 1 False, SHIFT 4131]), (588, [Entry 1 False, SHIFT 4152]),
     (590, [Entry 1 False, SHIFT 4238]), (592, [Entry 1 False, SHIFT 4303]),
     (594, [Entry 1 False, SHIFT 4328]), (596, [Entry 1 False, SHIFT 4535]),
     (598, [Entry 1 False, SHIFT 3609]), (600, [Entry 1 False, SHIFT 4926]),
     (602, [Entry 1 False, SHIFT 4991]), (604, [Entry 1 False, SHIFT 5016]),
     (606, [Entry 1 False, SHIFT 5205]), (608, [Entry 1 False, SHIFT 5689]),
     (610, [Entry 1 False, SHIFT 3586]), (612, [Entry 1 False, SHIFT 3809]),
     (614, [Entry 1 False, SHIFT 3968]), (616, [Entry 1 False, SHIFT 3684]),
     (618, [Entry 1 False, SHIFT 7155]),
     (620, [Entry 2 False, REDUCE sym_case_selection 2 0 259, SHIFT 2011]),
     (623, [Entry 2 False, REDUCE sym_case_selection 2 0 259, SHIFT 2010]),
     (626, [Entry 2 False, REDUCE sym_case_selection 2 0 259, SHIFT 1902]),
     (629, [Entry 1 False, SHIFT 7625]), (631, [Entry 1 True, REDUCE sym_case_selection 2 0 259])]"

lemma ts_parse_actions_2_tiled: "tiled_from 330 ts_parse_actions_2 \<and> after_runs 330 ts_parse_actions_2 = 633"
  unfolding ts_parse_actions_2_def by (simp cong: runs_weak)

lemma ts_parse_actions_2_ok: "list_all (\<lambda>(i, es). group_ok es) ts_parse_actions_2"
  unfolding ts_parse_actions_2_def
  by (simp add: group_ok_simps entry_action_ok_simps del: One_nat_def group_ok.simps cong: list_all_weak)

lemma row_actions_2_start: "map fst ts_parse_actions_2 = row_actions_2"
  by (simp add: row_actions_2_def ts_parse_actions_2_def)

text \<open>Lines 481021 to 481170.\<close>

definition ts_parse_actions_3 :: "(nat \<times> TSParseActionEntry list) list" where
  "ts_parse_actions_3 =
    [(633, [Entry 1 False, REDUCE sym_case_selection 2 0 259]), (635, [Entry 1 True, SHIFT 208]),
     (637, [Entry 2 True, REDUCE sym_case_selection 2 0 259, SHIFT 9197]),
     (640, [Entry 1 False, SHIFT 7553]), (642, [Entry 1 False, SHIFT 2284]),
     (644, [Entry 1 False, SHIFT 46]), (646, [Entry 1 False, SHIFT 88]),
     (648, [Entry 1 False, SHIFT 3375]), (650, [Entry 1 False, SHIFT 37]),
     (652, [Entry 1 False, SHIFT 2332]), (654, [Entry 1 False, SHIFT 10539]),
     (656, [Entry 1 False, SHIFT 2299]), (658, [Entry 1 False, SHIFT 2285]),
     (660, [Entry 1 False, SHIFT 6773]), (662, [Entry 1 False, SHIFT 6833]),
     (664, [Entry 1 False, SHIFT 6895]),
     (666, [Entry 2 False, REDUCE aux_sym_stmt_list_repeat1 2 0 0, SHIFT_REPEAT 2011]),
     (669, [Entry 2 False, REDUCE aux_sym_stmt_list_repeat1 2 0 0, SHIFT_REPEAT 2010]),
     (672, [Entry 2 False, REDUCE aux_sym_stmt_list_repeat1 2 0 0, SHIFT_REPEAT 1902]),
     (675, [Entry 2 False, REDUCE aux_sym_stmt_list_repeat1 2 0 0, SHIFT_REPEAT 7625]),
     (678, [Entry 1 True, REDUCE aux_sym_stmt_list_repeat1 2 0 0]),
     (680, [Entry 2 True, REDUCE aux_sym_stmt_list_repeat1 2 0 0, SHIFT_REPEAT 7502]),
     (683, [Entry 2 True, REDUCE aux_sym_stmt_list_repeat1 2 0 0, SHIFT_REPEAT 7531]),
     (686, [Entry 2 True, REDUCE aux_sym_stmt_list_repeat1 2 0 0, SHIFT_REPEAT 7522]),
     (689, [Entry 2 True, REDUCE aux_sym_stmt_list_repeat1 2 0 0, SHIFT_REPEAT 7533]),
     (692, [Entry 1 False, REDUCE aux_sym_stmt_list_repeat1 2 0 0]),
     (694, [Entry 2 True, REDUCE aux_sym_stmt_list_repeat1 2 0 0, SHIFT_REPEAT 207]),
     (697, [Entry 2 True, REDUCE aux_sym_stmt_list_repeat1 2 0 0, SHIFT_REPEAT 9197]),
     (700, [Entry 2 False, REDUCE aux_sym_stmt_list_repeat1 2 0 0, SHIFT_REPEAT 7553]),
     (703, [Entry 2 False, REDUCE aux_sym_stmt_list_repeat1 2 0 0, SHIFT_REPEAT 2284]),
     (706, [Entry 2 False, REDUCE aux_sym_stmt_list_repeat1 2 0 0, SHIFT_REPEAT 46]),
     (709, [Entry 2 False, REDUCE aux_sym_stmt_list_repeat1 2 0 0, SHIFT_REPEAT 88]),
     (712, [Entry 2 False, REDUCE aux_sym_stmt_list_repeat1 2 0 0, SHIFT_REPEAT 3375]),
     (715, [Entry 2 False, REDUCE aux_sym_stmt_list_repeat1 2 0 0, SHIFT_REPEAT 37]),
     (718, [Entry 2 False, REDUCE aux_sym_stmt_list_repeat1 2 0 0, SHIFT_REPEAT 2332]),
     (721, [Entry 2 False, REDUCE aux_sym_stmt_list_repeat1 2 0 0, SHIFT_REPEAT 10539]),
     (724, [Entry 2 False, REDUCE aux_sym_stmt_list_repeat1 2 0 0, SHIFT_REPEAT 2299]),
     (727, [Entry 2 False, REDUCE aux_sym_stmt_list_repeat1 2 0 0, SHIFT_REPEAT 2285]),
     (730, [Entry 2 False, REDUCE sym_case_body 1 0 0, SHIFT 2011]),
     (733, [Entry 2 False, REDUCE sym_case_body 1 0 0, SHIFT 2010]),
     (736, [Entry 2 False, REDUCE sym_case_body 1 0 0, SHIFT 1902]),
     (739, [Entry 1 True, REDUCE sym_case_body 1 0 0]),
     (741, [Entry 1 False, REDUCE sym_case_body 1 0 0]), (743, [Entry 1 True, SHIFT 207]),
     (745, [Entry 2 True, REDUCE sym_case_body 1 0 0, SHIFT 9197]),
     (748, [Entry 1 False, SHIFT 5038]), (750, [Entry 1 False, SHIFT 6986]),
     (752, [Entry 1 False, SHIFT 4188]), (754, [Entry 1 False, SHIFT 7071]),
     (756, [Entry 1 False, SHIFT 5263]), (758, [Entry 1 False, SHIFT 4126]),
     (760, [Entry 1 False, SHIFT 3459]), (762, [Entry 1 False, SHIFT 3477]),
     (764, [Entry 1 False, SHIFT 6828]), (766, [Entry 1 False, SHIFT 3542]),
     (768, [Entry 1 False, SHIFT 6708]), (770, [Entry 1 False, SHIFT 4338]),
     (772, [Entry 1 False, SHIFT 3584]), (774, [Entry 1 False, SHIFT 3610]),
     (776, [Entry 1 False, SHIFT 3682]), (778, [Entry 1 False, SHIFT 3738]),
     (780, [Entry 1 False, SHIFT 3756]), (782, [Entry 1 False, SHIFT 6587]),
     (784, [Entry 1 False, SHIFT 4037]), (786, [Entry 1 False, SHIFT 3526]),
     (788, [Entry 1 False, SHIFT 6923]), (790, [Entry 1 False, SHIFT 4079]),
     (792, [Entry 1 False, SHIFT 4104]), (794, [Entry 1 False, SHIFT 6996]),
     (796, [Entry 1 False, SHIFT 4135]), (798, [Entry 1 False, SHIFT 4520]),
     (800, [Entry 1 False, SHIFT 4157]), (802, [Entry 1 False, SHIFT 6603]),
     (804, [Entry 1 False, SHIFT 4225]), (806, [Entry 1 False, SHIFT 4243]),
     (808, [Entry 1 False, SHIFT 7043]), (810, [Entry 1 False, SHIFT 4308]),
     (812, [Entry 1 False, SHIFT 7068]), (814, [Entry 1 False, SHIFT 7108]),
     (816, [Entry 1 False, SHIFT 4350]), (818, [Entry 1 False, SHIFT 4376]),
     (820, [Entry 1 False, SHIFT 7103]), (822, [Entry 1 False, SHIFT 4466]),
     (824, [Entry 1 False, SHIFT 4522]), (826, [Entry 1 False, SHIFT 4540]),
     (828, [Entry 1 False, SHIFT 4703]), (830, [Entry 1 False, SHIFT 4702]),
     (832, [Entry 1 False, SHIFT 7125]), (834, [Entry 1 False, SHIFT 4913]),
     (836, [Entry 1 False, SHIFT 4931]), (838, [Entry 1 False, SHIFT 3531]),
     (840, [Entry 1 False, SHIFT 4996]), (842, [Entry 1 False, SHIFT 4102]),
     (844, [Entry 1 False, SHIFT 6897]), (846, [Entry 1 False, SHIFT 6785]),
     (848, [Entry 1 False, SHIFT 5064]), (850, [Entry 1 False, SHIFT 5136]),
     (852, [Entry 1 False, SHIFT 5192]), (854, [Entry 1 False, SHIFT 5210]),
     (856, [Entry 1 False, SHIFT 3425]), (858, [Entry 1 False, SHIFT 5378]),
     (860, [Entry 1 False, SHIFT 5620]), (862, [Entry 1 False, SHIFT 5676]),
     (864, [Entry 1 False, SHIFT 5694]), (866, [Entry 1 False, SHIFT 6876]),
     (868, [Entry 1 False, SHIFT 5856]), (870, [Entry 1 False, SHIFT 6670]),
     (872, [Entry 1 False, SHIFT 6133]), (874, [Entry 1 False, SHIFT 4377]),
     (876, [Entry 1 False, SHIFT 4014]), (878, [Entry 1 False, SHIFT 3567]),
     (880, [Entry 1 False, SHIFT 3835]), (882, [Entry 1 False, SHIFT 5036]),
     (884, [Entry 1 False, SHIFT 5191]), (886, [Entry 1 False, SHIFT 3718]),
     (888, [Entry 1 False, SHIFT 6541]), (890, [Entry 1 False, SHIFT 6720]),
     (892, [Entry 1 False, SHIFT 6493]), (894, [Entry 1 False, SHIFT 5209]),
     (896, [Entry 1 False, SHIFT 6579]), (898, [Entry 1 False, SHIFT 4995]),
     (900, [Entry 1 False, SHIFT 7042]), (902, [Entry 1 False, SHIFT 6613]),
     (904, [Entry 1 False, SHIFT 3785]), (906, [Entry 1 False, SHIFT 6712]),
     (908, [Entry 1 False, SHIFT 6752]), (910, [Entry 1 False, SHIFT 6529]),
     (912, [Entry 1 False, SHIFT 6629]), (914, [Entry 1 False, SHIFT 5057]),
     (916, [Entry 1 False, SHIFT 3423]), (918, [Entry 1 False, SHIFT 6769]),
     (920, [Entry 1 False, SHIFT 4299]), (922, [Entry 1 False, SHIFT 6779]),
     (924, [Entry 1 False, SHIFT 6713]), (926, [Entry 1 False, SHIFT 6810]),
     (928, [Entry 1 False, SHIFT 3854]), (930, [Entry 1 False, SHIFT 6831]),
     (932, [Entry 1 False, SHIFT 3564]), (934, [Entry 1 False, SHIFT 7186]),
     (936, [Entry 1 False, SHIFT 6918]), (938, [Entry 1 False, SHIFT 4767]),
     (940, [Entry 1 False, SHIFT 6120]), (942, [Entry 1 False, SHIFT 6749]),
     (944, [Entry 1 False, SHIFT 3812]), (946, [Entry 1 False, SHIFT 3847]),
     (948, [Entry 1 False, SHIFT 6760]), (950, [Entry 1 False, SHIFT 6766]),
     (952, [Entry 1 False, SHIFT 5278]), (954, [Entry 1 False, SHIFT 4107]),
     (956, [Entry 1 False, SHIFT 6777])]"

lemma ts_parse_actions_3_tiled: "tiled_from 633 ts_parse_actions_3 \<and> after_runs 633 ts_parse_actions_3 = 958"
  unfolding ts_parse_actions_3_def by (simp cong: runs_weak)

lemma ts_parse_actions_3_ok: "list_all (\<lambda>(i, es). group_ok es) ts_parse_actions_3"
  unfolding ts_parse_actions_3_def
  by (simp add: group_ok_simps entry_action_ok_simps del: One_nat_def group_ok.simps cong: list_all_weak)

lemma row_actions_3_start: "map fst ts_parse_actions_3 = row_actions_3"
  by (simp add: row_actions_3_def ts_parse_actions_3_def)

text \<open>Lines 481171 to 481320.\<close>

definition ts_parse_actions_4 :: "(nat \<times> TSParseActionEntry list) list" where
  "ts_parse_actions_4 =
    [(958, [Entry 1 False, SHIFT 6782]), (960, [Entry 1 False, SHIFT 5354]),
     (962, [Entry 1 False, SHIFT 5414]), (964, [Entry 1 False, SHIFT 5678]),
     (966, [Entry 1 False, SHIFT 6794]), (968, [Entry 1 False, SHIFT 6802]),
     (970, [Entry 1 False, SHIFT 3422]), (972, [Entry 1 False, SHIFT 6815]),
     (974, [Entry 1 False, SHIFT 6819]), (976, [Entry 1 False, SHIFT 6822]),
     (978, [Entry 1 False, SHIFT 6825]), (980, [Entry 1 False, SHIFT 4071]),
     (982, [Entry 1 False, SHIFT 6832]), (984, [Entry 1 False, SHIFT 3457]),
     (986, [Entry 1 False, SHIFT 3508]), (988, [Entry 1 False, SHIFT 3460]),
     (990, [Entry 1 False, SHIFT 3475]), (992, [Entry 1 False, SHIFT 3480]),
     (994, [Entry 1 False, SHIFT 6964]), (996, [Entry 1 False, SHIFT 6971]),
     (998, [Entry 1 False, SHIFT 6975]), (1000, [Entry 1 False, SHIFT 6979]),
     (1002, [Entry 1 False, SHIFT 6991]), (1004, [Entry 1 False, SHIFT 3483]),
     (1006, [Entry 1 False, SHIFT 3506]), (1008, [Entry 1 False, SHIFT 7006]),
     (1010, [Entry 1 False, SHIFT 7016]), (1012, [Entry 1 False, SHIFT 4115]),
     (1014, [Entry 1 False, SHIFT 7030]), (1016, [Entry 1 False, SHIFT 7034]),
     (1018, [Entry 1 False, SHIFT 7037]), (1020, [Entry 1 False, SHIFT 7040]),
     (1022, [Entry 1 False, SHIFT 4158]), (1024, [Entry 1 False, SHIFT 7047]),
     (1026, [Entry 1 False, SHIFT 7055]), (1028, [Entry 1 False, SHIFT 7059]),
     (1030, [Entry 1 False, SHIFT 7062]), (1032, [Entry 1 False, SHIFT 7065]),
     (1034, [Entry 1 False, SHIFT 3545]), (1036, [Entry 1 False, SHIFT 7074]),
     (1038, [Entry 1 False, SHIFT 3551]), (1040, [Entry 1 False, SHIFT 7089]),
     (1042, [Entry 1 False, SHIFT 7093]), (1044, [Entry 1 False, SHIFT 7096]),
     (1046, [Entry 1 False, SHIFT 7100]), (1048, [Entry 1 False, SHIFT 3454]),
     (1050, [Entry 1 False, SHIFT 3563]), (1052, [Entry 1 False, SHIFT 7111]),
     (1054, [Entry 1 False, SHIFT 7122]), (1056, [Entry 1 False, SHIFT 3726]),
     (1058, [Entry 1 False, SHIFT 3583]), (1060, [Entry 1 False, SHIFT 7133]),
     (1062, [Entry 1 False, SHIFT 7141]), (1064, [Entry 1 False, SHIFT 7166]),
     (1066, [Entry 1 False, SHIFT 7187]), (1068, [Entry 1 False, SHIFT 6604]),
     (1070, [Entry 1 False, SHIFT 6553]), (1072, [Entry 1 False, SHIFT 3519]),
     (1074, [Entry 1 False, SHIFT 3963]), (1076, [Entry 1 False, SHIFT 3984]),
     (1078, [Entry 1 False, SHIFT 4025]), (1080, [Entry 1 False, SHIFT 6671]),
     (1082, [Entry 1 False, SHIFT 4185]), (1084, [Entry 1 False, SHIFT 4674]),
     (1086, [Entry 1 False, SHIFT 3736]), (1088, [Entry 1 False, SHIFT 3658]),
     (1090, [Entry 1 False, SHIFT 5190]), (1092, [Entry 1 False, SHIFT 5773]),
     (1094, [Entry 1 False, SHIFT 6359]), (1096, [Entry 1 False, SHIFT 6492]),
     (1098, [Entry 1 False, SHIFT 6525]), (1100, [Entry 1 False, SHIFT 6601]),
     (1102, [Entry 1 False, SHIFT 6633]), (1104, [Entry 1 False, SHIFT 6684]),
     (1106, [Entry 1 False, SHIFT 6723]), (1108, [Entry 1 False, SHIFT 6872]),
     (1110, [Entry 1 False, SHIFT 3674]), (1112, [Entry 1 False, SHIFT 3680]),
     (1114, [Entry 1 False, SHIFT 6926]), (1116, [Entry 1 False, SHIFT 6987]),
     (1118, [Entry 1 False, SHIFT 3685]), (1120, [Entry 1 False, SHIFT 3452]),
     (1122, [Entry 1 False, SHIFT 3481]), (1124, [Entry 1 False, SHIFT 3541]),
     (1126, [Entry 1 False, SHIFT 3559]), (1128, [Entry 1 False, SHIFT 6775]),
     (1130, [Entry 1 False, SHIFT 3579]), (1132, [Entry 1 False, SHIFT 3611]),
     (1134, [Entry 1 False, SHIFT 3659]), (1136, [Entry 1 False, SHIFT 3805]),
     (1138, [Entry 1 False, SHIFT 3828]), (1140, [Entry 1 False, SHIFT 3763]),
     (1142, [Entry 1 False, SHIFT 3853]), (1144, [Entry 1 False, SHIFT 3909]),
     (1146, [Entry 1 False, SHIFT 6518]), (1148, [Entry 1 False, SHIFT 6524]),
     (1150, [Entry 1 False, SHIFT 6530]), (1152, [Entry 1 False, SHIFT 6537]),
     (1154, [Entry 1 False, SHIFT 3740]), (1156, [Entry 1 False, SHIFT 6545]),
     (1158, [Entry 1 False, SHIFT 3762]), (1160, [Entry 1 False, SHIFT 6560]),
     (1162, [Entry 1 False, SHIFT 6564]), (1164, [Entry 1 False, SHIFT 6567]),
     (1166, [Entry 1 False, SHIFT 6571]), (1168, [Entry 1 False, SHIFT 3787]),
     (1170, [Entry 1 False, SHIFT 6791]), (1172, [Entry 1 False, SHIFT 6602]),
     (1174, [Entry 1 False, SHIFT 6610]), (1176, [Entry 1 False, SHIFT 6807]),
     (1178, [Entry 1 False, SHIFT 3902]), (1180, [Entry 1 False, SHIFT 6621]),
     (1182, [Entry 1 False, SHIFT 6626]), (1184, [Entry 1 False, SHIFT 7171]),
     (1186, [Entry 1 False, SHIFT 6628]), (1188, [Entry 1 False, SHIFT 6830]),
     (1190, [Entry 1 False, SHIFT 6641]), (1192, [Entry 1 False, SHIFT 6652]),
     (1194, [Entry 1 False, SHIFT 4040]), (1196, [Entry 1 False, SHIFT 6683]),
     (1198, [Entry 1 False, SHIFT 6692]), (1200, [Entry 1 False, SHIFT 6695]),
     (1202, [Entry 1 False, SHIFT 6698]), (1204, [Entry 1 False, SHIFT 4062]),
     (1206, [Entry 1 False, SHIFT 6722]), (1208, [Entry 1 False, SHIFT 6757]),
     (1210, [Entry 1 False, SHIFT 6786]), (1212, [Entry 1 False, SHIFT 6790]),
     (1214, [Entry 1 False, SHIFT 6808]), (1216, [Entry 1 False, SHIFT 6826]),
     (1218, [Entry 1 False, SHIFT 6858]), (1220, [Entry 1 False, SHIFT 6873]),
     (1222, [Entry 1 False, SHIFT 6851]), (1224, [Entry 1 False, SHIFT 6865]),
     (1226, [Entry 1 False, SHIFT 6892]), (1228, [Entry 1 False, SHIFT 6881]),
     (1230, [Entry 1 False, SHIFT 6885]), (1232, [Entry 1 False, SHIFT 6888]),
     (1234, [Entry 1 False, SHIFT 6891]), (1236, [Entry 1 False, SHIFT 4156]),
     (1238, [Entry 1 False, SHIFT 6901]), (1240, [Entry 1 False, SHIFT 6909]),
     (1242, [Entry 1 False, SHIFT 6913]), (1244, [Entry 1 False, SHIFT 6916]),
     (1246, [Entry 1 False, SHIFT 6920]), (1248, [Entry 1 False, SHIFT 4161]),
     (1250, [Entry 1 False, SHIFT 6927]), (1252, [Entry 1 False, SHIFT 4164]),
     (1254, [Entry 1 False, SHIFT 6941]), (1256, [Entry 1 False, SHIFT 6945])]"

lemma ts_parse_actions_4_tiled: "tiled_from 958 ts_parse_actions_4 \<and> after_runs 958 ts_parse_actions_4 = 1258"
  unfolding ts_parse_actions_4_def by (simp cong: runs_weak)

lemma ts_parse_actions_4_ok: "list_all (\<lambda>(i, es). group_ok es) ts_parse_actions_4"
  unfolding ts_parse_actions_4_def
  by (simp add: group_ok_simps entry_action_ok_simps del: One_nat_def group_ok.simps cong: list_all_weak)

lemma row_actions_4_start: "map fst ts_parse_actions_4 = row_actions_4"
  by (simp add: row_actions_4_def ts_parse_actions_4_def)

text \<open>Lines 481321 to 481470.\<close>

definition ts_parse_actions_5 :: "(nat \<times> TSParseActionEntry list) list" where
  "ts_parse_actions_5 =
    [(1258, [Entry 1 False, SHIFT 6948]), (1260, [Entry 1 False, SHIFT 6980]),
     (1262, [Entry 1 False, SHIFT 4181]), (1264, [Entry 1 False, SHIFT 6896]),
     (1266, [Entry 1 False, SHIFT 7008]), (1268, [Entry 1 False, SHIFT 7067]),
     (1270, [Entry 1 False, SHIFT 4218]), (1272, [Entry 1 False, SHIFT 3426]),
     (1274, [Entry 1 False, SHIFT 7102]), (1276, [Entry 1 False, SHIFT 7129]),
     (1278, [Entry 1 False, SHIFT 7148]), (1280, [Entry 1 False, SHIFT 7154]),
     (1282, [Entry 1 False, SHIFT 7157]), (1284, [Entry 1 False, SHIFT 4247]),
     (1286, [Entry 1 False, SHIFT 3438]), (1288, [Entry 1 False, SHIFT 3446]),
     (1290, [Entry 1 False, SHIFT 3450]), (1292, [Entry 1 False, SHIFT 3453]),
     (1294, [Entry 1 False, SHIFT 3456]), (1296, [Entry 1 False, SHIFT 4252]),
     (1298, [Entry 1 False, SHIFT 3463]), (1300, [Entry 1 False, SHIFT 3474]),
     (1302, [Entry 1 False, SHIFT 4271]), (1304, [Entry 1 False, SHIFT 4292]),
     (1306, [Entry 1 False, SHIFT 3485]), (1308, [Entry 1 False, SHIFT 3493]),
     (1310, [Entry 1 False, SHIFT 3500]), (1312, [Entry 1 False, SHIFT 3504]),
     (1314, [Entry 1 False, SHIFT 3507]), (1316, [Entry 1 False, SHIFT 3518]),
     (1318, [Entry 1 False, SHIFT 3525]), (1320, [Entry 1 False, SHIFT 3529]),
     (1322, [Entry 1 False, SHIFT 3532]), (1324, [Entry 1 False, SHIFT 3539]),
     (1326, [Entry 1 False, SHIFT 4999]), (1328, [Entry 1 False, SHIFT 6952]),
     (1330, [Entry 1 False, SHIFT 3550]), (1332, [Entry 1 False, SHIFT 3558]),
     (1334, [Entry 1 False, SHIFT 4314]), (1336, [Entry 1 False, SHIFT 3571]),
     (1338, [Entry 1 False, SHIFT 3575]), (1340, [Entry 1 False, SHIFT 3578]),
     (1342, [Entry 1 False, SHIFT 3581]), (1344, [Entry 1 False, SHIFT 4331]),
     (1346, [Entry 1 False, SHIFT 3588]), (1348, [Entry 1 False, SHIFT 3597]),
     (1350, [Entry 1 False, SHIFT 3601]), (1352, [Entry 1 False, SHIFT 3604]),
     (1354, [Entry 1 False, SHIFT 3607]), (1356, [Entry 1 False, SHIFT 6994]),
     (1358, [Entry 1 False, SHIFT 3614]), (1360, [Entry 1 False, SHIFT 3629]),
     (1362, [Entry 1 False, SHIFT 3646]), (1364, [Entry 1 False, SHIFT 3653]),
     (1366, [Entry 1 False, SHIFT 3657]), (1368, [Entry 1 False, SHIFT 3660]),
     (1370, [Entry 1 False, SHIFT 3669]), (1372, [Entry 1 False, SHIFT 3673]),
     (1374, [Entry 1 False, SHIFT 3676]), (1376, [Entry 1 False, SHIFT 3679]),
     (1378, [Entry 1 False, SHIFT 7005]), (1380, [Entry 1 False, SHIFT 3686]),
     (1382, [Entry 1 False, SHIFT 3701]), (1384, [Entry 1 False, SHIFT 3717]),
     (1386, [Entry 1 False, SHIFT 3725]), (1388, [Entry 1 False, SHIFT 3729]),
     (1390, [Entry 1 False, SHIFT 3732]), (1392, [Entry 1 False, SHIFT 3735]),
     (1394, [Entry 1 False, SHIFT 4353]), (1396, [Entry 1 False, SHIFT 3742]),
     (1398, [Entry 1 False, SHIFT 3753]), (1400, [Entry 1 False, SHIFT 4371]),
     (1402, [Entry 1 False, SHIFT 7022]), (1404, [Entry 1 False, SHIFT 3764]),
     (1406, [Entry 1 False, SHIFT 3772]), (1408, [Entry 1 False, SHIFT 3779]),
     (1410, [Entry 1 False, SHIFT 3783]), (1412, [Entry 1 False, SHIFT 3786]),
     (1414, [Entry 1 False, SHIFT 3797]), (1416, [Entry 1 False, SHIFT 3804]),
     (1418, [Entry 1 False, SHIFT 3808]), (1420, [Entry 1 False, SHIFT 3811]),
     (1422, [Entry 1 False, SHIFT 4013]), (1424, [Entry 1 False, SHIFT 4020]),
     (1426, [Entry 1 False, SHIFT 4024]), (1428, [Entry 1 False, SHIFT 4027]),
     (1430, [Entry 1 False, SHIFT 4034]), (1432, [Entry 1 False, SHIFT 7025]),
     (1434, [Entry 1 False, SHIFT 7036]), (1436, [Entry 1 False, SHIFT 4045]),
     (1438, [Entry 1 False, SHIFT 4053]), (1440, [Entry 1 False, SHIFT 4405]),
     (1442, [Entry 1 False, SHIFT 4066]), (1444, [Entry 1 False, SHIFT 4070]),
     (1446, [Entry 1 False, SHIFT 4073]), (1448, [Entry 1 False, SHIFT 4076]),
     (1450, [Entry 1 False, SHIFT 4413]), (1452, [Entry 1 False, SHIFT 4083]),
     (1454, [Entry 1 False, SHIFT 4091]), (1456, [Entry 1 False, SHIFT 4095]),
     (1458, [Entry 1 False, SHIFT 4098]), (1460, [Entry 1 False, SHIFT 4101]),
     (1462, [Entry 1 False, SHIFT 7126]), (1464, [Entry 1 False, SHIFT 4108]),
     (1466, [Entry 1 False, SHIFT 4461]), (1468, [Entry 1 False, SHIFT 4121]),
     (1470, [Entry 1 False, SHIFT 4125]), (1472, [Entry 1 False, SHIFT 4128]),
     (1474, [Entry 1 False, SHIFT 4132]), (1476, [Entry 1 False, SHIFT 4468]),
     (1478, [Entry 1 False, SHIFT 4486]), (1480, [Entry 1 False, SHIFT 4143]),
     (1482, [Entry 1 False, SHIFT 4154]), (1484, [Entry 1 False, SHIFT 4514]),
     (1486, [Entry 1 False, SHIFT 7048]), (1488, [Entry 1 False, SHIFT 4165]),
     (1490, [Entry 1 False, SHIFT 4173]), (1492, [Entry 1 False, SHIFT 4180]),
     (1494, [Entry 1 False, SHIFT 4184]), (1496, [Entry 1 False, SHIFT 4187]),
     (1498, [Entry 1 False, SHIFT 4204]), (1500, [Entry 1 False, SHIFT 4212]),
     (1502, [Entry 1 False, SHIFT 4216]), (1504, [Entry 1 False, SHIFT 4219]),
     (1506, [Entry 1 False, SHIFT 4222]), (1508, [Entry 1 False, SHIFT 4525]),
     (1510, [Entry 1 False, SHIFT 4229]), (1512, [Entry 1 False, SHIFT 4240]),
     (1514, [Entry 1 False, SHIFT 4571]), (1516, [Entry 1 False, SHIFT 4630]),
     (1518, [Entry 1 False, SHIFT 4251]), (1520, [Entry 1 False, SHIFT 4259]),
     (1522, [Entry 1 False, SHIFT 4266]), (1524, [Entry 1 False, SHIFT 4270]),
     (1526, [Entry 1 False, SHIFT 4273]), (1528, [Entry 1 False, SHIFT 4284]),
     (1530, [Entry 1 False, SHIFT 4291]), (1532, [Entry 1 False, SHIFT 4295]),
     (1534, [Entry 1 False, SHIFT 4298]), (1536, [Entry 1 False, SHIFT 4305]),
     (1538, [Entry 1 False, SHIFT 4644]), (1540, [Entry 1 False, SHIFT 4678]),
     (1542, [Entry 1 False, SHIFT 4316]), (1544, [Entry 1 False, SHIFT 4324]),
     (1546, [Entry 1 False, SHIFT 4700]), (1548, [Entry 1 False, SHIFT 4337]),
     (1550, [Entry 1 False, SHIFT 4341]), (1552, [Entry 1 False, SHIFT 4344]),
     (1554, [Entry 1 False, SHIFT 4347]), (1556, [Entry 1 False, SHIFT 6719])]"

lemma ts_parse_actions_5_tiled: "tiled_from 1258 ts_parse_actions_5 \<and> after_runs 1258 ts_parse_actions_5 = 1558"
  unfolding ts_parse_actions_5_def by (simp cong: runs_weak)

lemma ts_parse_actions_5_ok: "list_all (\<lambda>(i, es). group_ok es) ts_parse_actions_5"
  unfolding ts_parse_actions_5_def
  by (simp add: group_ok_simps entry_action_ok_simps del: One_nat_def group_ok.simps cong: list_all_weak)

lemma row_actions_5_start: "map fst ts_parse_actions_5 = row_actions_5"
  by (simp add: row_actions_5_def ts_parse_actions_5_def)

text \<open>Lines 481471 to 481620.\<close>

definition ts_parse_actions_6 :: "(nat \<times> TSParseActionEntry list) list" where
  "ts_parse_actions_6 =
    [(1558, [Entry 1 False, SHIFT 4354]), (1560, [Entry 1 False, SHIFT 4363]),
     (1562, [Entry 1 False, SHIFT 4367]), (1564, [Entry 1 False, SHIFT 4370]),
     (1566, [Entry 1 False, SHIFT 4373]), (1568, [Entry 1 False, SHIFT 7083]),
     (1570, [Entry 1 False, SHIFT 4380]), (1572, [Entry 1 False, SHIFT 4395]),
     (1574, [Entry 1 False, SHIFT 4879]), (1576, [Entry 1 False, SHIFT 4430]),
     (1578, [Entry 1 False, SHIFT 4437]), (1580, [Entry 1 False, SHIFT 6745]),
     (1582, [Entry 1 False, SHIFT 4444]), (1584, [Entry 1 False, SHIFT 4453]),
     (1586, [Entry 1 False, SHIFT 4457]), (1588, [Entry 1 False, SHIFT 4460]),
     (1590, [Entry 1 False, SHIFT 4463]), (1592, [Entry 1 False, SHIFT 4912]),
     (1594, [Entry 1 False, SHIFT 4470]), (1596, [Entry 1 False, SHIFT 4485]),
     (1598, [Entry 1 False, SHIFT 4501]), (1600, [Entry 1 False, SHIFT 4509]),
     (1602, [Entry 1 False, SHIFT 4513]), (1604, [Entry 1 False, SHIFT 4516]),
     (1606, [Entry 1 False, SHIFT 4519]), (1608, [Entry 1 False, SHIFT 7094]),
     (1610, [Entry 1 False, SHIFT 4526]), (1612, [Entry 1 False, SHIFT 4537]),
     (1614, [Entry 1 False, SHIFT 4938]), (1616, [Entry 1 False, SHIFT 4959]),
     (1618, [Entry 1 False, SHIFT 4548]), (1620, [Entry 1 False, SHIFT 4556]),
     (1622, [Entry 1 False, SHIFT 4563]), (1624, [Entry 1 False, SHIFT 4567]),
     (1626, [Entry 1 False, SHIFT 4570]), (1628, [Entry 1 False, SHIFT 4581]),
     (1630, [Entry 1 False, SHIFT 4588]), (1632, [Entry 1 False, SHIFT 4592]),
     (1634, [Entry 1 False, SHIFT 4595]), (1636, [Entry 1 False, SHIFT 4618]),
     (1638, [Entry 1 False, SHIFT 4629]), (1640, [Entry 1 False, SHIFT 4636]),
     (1642, [Entry 1 False, SHIFT 4640]), (1644, [Entry 1 False, SHIFT 4643]),
     (1646, [Entry 1 False, SHIFT 4666]), (1648, [Entry 1 False, SHIFT 4673]),
     (1650, [Entry 1 False, SHIFT 4677]), (1652, [Entry 1 False, SHIFT 4680]),
     (1654, [Entry 1 False, SHIFT 4689]), (1656, [Entry 1 False, SHIFT 4693]),
     (1658, [Entry 1 False, SHIFT 4696]), (1660, [Entry 1 False, SHIFT 4699]),
     (1662, [Entry 1 False, SHIFT 4973]), (1664, [Entry 1 False, SHIFT 4705]),
     (1666, [Entry 1 False, SHIFT 4720]), (1668, [Entry 1 False, SHIFT 4736]),
     (1670, [Entry 1 False, SHIFT 4985]), (1672, [Entry 1 False, SHIFT 4892]),
     (1674, [Entry 1 False, SHIFT 4900]), (1676, [Entry 1 False, SHIFT 4904]),
     (1678, [Entry 1 False, SHIFT 4907]), (1680, [Entry 1 False, SHIFT 4910]),
     (1682, [Entry 1 False, SHIFT 7098]), (1684, [Entry 1 False, SHIFT 4917]),
     (1686, [Entry 1 False, SHIFT 4928]), (1688, [Entry 1 False, SHIFT 5000]),
     (1690, [Entry 1 False, SHIFT 5021]), (1692, [Entry 1 False, SHIFT 4939]),
     (1694, [Entry 1 False, SHIFT 4947]), (1696, [Entry 1 False, SHIFT 4954]),
     (1698, [Entry 1 False, SHIFT 4958]), (1700, [Entry 1 False, SHIFT 4961]),
     (1702, [Entry 1 False, SHIFT 4972]), (1704, [Entry 1 False, SHIFT 4979]),
     (1706, [Entry 1 False, SHIFT 4983]), (1708, [Entry 1 False, SHIFT 4986]),
     (1710, [Entry 1 False, SHIFT 4993]), (1712, [Entry 1 False, SHIFT 5033]),
     (1714, [Entry 1 False, SHIFT 5039]), (1716, [Entry 1 False, SHIFT 5004]),
     (1718, [Entry 1 False, SHIFT 5012]), (1720, [Entry 1 False, SHIFT 5043]),
     (1722, [Entry 1 False, SHIFT 5025]), (1724, [Entry 1 False, SHIFT 5029]),
     (1726, [Entry 1 False, SHIFT 5032]), (1728, [Entry 1 False, SHIFT 5035]),
     (1730, [Entry 1 False, SHIFT 7105]), (1732, [Entry 1 False, SHIFT 5042]),
     (1734, [Entry 1 False, SHIFT 5051]), (1736, [Entry 1 False, SHIFT 5055]),
     (1738, [Entry 1 False, SHIFT 5058]), (1740, [Entry 1 False, SHIFT 5061]),
     (1742, [Entry 1 False, SHIFT 5065]), (1744, [Entry 1 False, SHIFT 5068]),
     (1746, [Entry 1 False, SHIFT 5083]), (1748, [Entry 1 False, SHIFT 5100]),
     (1750, [Entry 1 False, SHIFT 5107]), (1752, [Entry 1 False, SHIFT 5111]),
     (1754, [Entry 1 False, SHIFT 5114]), (1756, [Entry 1 False, SHIFT 5123]),
     (1758, [Entry 1 False, SHIFT 5127]), (1760, [Entry 1 False, SHIFT 5130]),
     (1762, [Entry 1 False, SHIFT 5133]), (1764, [Entry 1 False, SHIFT 6992]),
     (1766, [Entry 1 False, SHIFT 5140]), (1768, [Entry 1 False, SHIFT 5155]),
     (1770, [Entry 1 False, SHIFT 5171]), (1772, [Entry 1 False, SHIFT 5179]),
     (1774, [Entry 1 False, SHIFT 5183]), (1776, [Entry 1 False, SHIFT 5186]),
     (1778, [Entry 1 False, SHIFT 5189]), (1780, [Entry 1 False, SHIFT 5131]),
     (1782, [Entry 1 False, SHIFT 5196]), (1784, [Entry 1 False, SHIFT 5207]),
     (1786, [Entry 1 False, SHIFT 5138]), (1788, [Entry 1 False, SHIFT 5156]),
     (1790, [Entry 1 False, SHIFT 5218]), (1792, [Entry 1 False, SHIFT 5226]),
     (1794, [Entry 1 False, SHIFT 5233]), (1796, [Entry 1 False, SHIFT 5237]),
     (1798, [Entry 1 False, SHIFT 5240]), (1800, [Entry 1 False, SHIFT 5251]),
     (1802, [Entry 1 False, SHIFT 5258]), (1804, [Entry 1 False, SHIFT 5262]),
     (1806, [Entry 1 False, SHIFT 5265]), (1808, [Entry 1 False, SHIFT 5294]),
     (1810, [Entry 1 False, SHIFT 5305]), (1812, [Entry 1 False, SHIFT 5312]),
     (1814, [Entry 1 False, SHIFT 5316]), (1816, [Entry 1 False, SHIFT 5319]),
     (1818, [Entry 1 False, SHIFT 5342]), (1820, [Entry 1 False, SHIFT 5349]),
     (1822, [Entry 1 False, SHIFT 5353]), (1824, [Entry 1 False, SHIFT 5356]),
     (1826, [Entry 1 False, SHIFT 5365]), (1828, [Entry 1 False, SHIFT 5369]),
     (1830, [Entry 1 False, SHIFT 5372]), (1832, [Entry 1 False, SHIFT 5375]),
     (1834, [Entry 1 False, SHIFT 5185]), (1836, [Entry 1 False, SHIFT 5382]),
     (1838, [Entry 1 False, SHIFT 5397]), (1840, [Entry 1 False, SHIFT 5413]),
     (1842, [Entry 1 False, SHIFT 5436]), (1844, [Entry 1 False, SHIFT 5454]),
     (1846, [Entry 1 False, SHIFT 5465]), (1848, [Entry 1 False, SHIFT 5472]),
     (1850, [Entry 1 False, SHIFT 5476]), (1852, [Entry 1 False, SHIFT 5479]),
     (1854, [Entry 1 False, SHIFT 5584]), (1856, [Entry 1 False, SHIFT 5591])]"

lemma ts_parse_actions_6_tiled: "tiled_from 1558 ts_parse_actions_6 \<and> after_runs 1558 ts_parse_actions_6 = 1858"
  unfolding ts_parse_actions_6_def by (simp cong: runs_weak)

lemma ts_parse_actions_6_ok: "list_all (\<lambda>(i, es). group_ok es) ts_parse_actions_6"
  unfolding ts_parse_actions_6_def
  by (simp add: group_ok_simps entry_action_ok_simps del: One_nat_def group_ok.simps cong: list_all_weak)

lemma row_actions_6_start: "map fst ts_parse_actions_6 = row_actions_6"
  by (simp add: row_actions_6_def ts_parse_actions_6_def)

text \<open>Lines 481621 to 481770.\<close>

definition ts_parse_actions_7 :: "(nat \<times> TSParseActionEntry list) list" where
  "ts_parse_actions_7 =
    [(1858, [Entry 1 False, SHIFT 5595]), (1860, [Entry 1 False, SHIFT 5598]),
     (1862, [Entry 1 False, SHIFT 5607]), (1864, [Entry 1 False, SHIFT 5611]),
     (1866, [Entry 1 False, SHIFT 5614]), (1868, [Entry 1 False, SHIFT 5617]),
     (1870, [Entry 1 False, SHIFT 5056]), (1872, [Entry 1 False, SHIFT 5624]),
     (1874, [Entry 1 False, SHIFT 5639]), (1876, [Entry 1 False, SHIFT 5655]),
     (1878, [Entry 1 False, SHIFT 5663]), (1880, [Entry 1 False, SHIFT 5667]),
     (1882, [Entry 1 False, SHIFT 5670]), (1884, [Entry 1 False, SHIFT 5673]),
     (1886, [Entry 1 False, SHIFT 7128]), (1888, [Entry 1 False, SHIFT 5680]),
     (1890, [Entry 1 False, SHIFT 5691]), (1892, [Entry 1 False, SHIFT 5212]),
     (1894, [Entry 1 False, SHIFT 5241]), (1896, [Entry 1 False, SHIFT 5702]),
     (1898, [Entry 1 False, SHIFT 5710]), (1900, [Entry 1 False, SHIFT 5717]),
     (1902, [Entry 1 False, SHIFT 5721]), (1904, [Entry 1 False, SHIFT 5724]),
     (1906, [Entry 1 False, SHIFT 5735]), (1908, [Entry 1 False, SHIFT 5742]),
     (1910, [Entry 1 False, SHIFT 5746]), (1912, [Entry 1 False, SHIFT 5749]),
     (1914, [Entry 1 False, SHIFT 5772]), (1916, [Entry 1 False, SHIFT 5783]),
     (1918, [Entry 1 False, SHIFT 5790]), (1920, [Entry 1 False, SHIFT 5794]),
     (1922, [Entry 1 False, SHIFT 5797]), (1924, [Entry 1 False, SHIFT 5820]),
     (1926, [Entry 1 False, SHIFT 5827]), (1928, [Entry 1 False, SHIFT 5831]),
     (1930, [Entry 1 False, SHIFT 5834]), (1932, [Entry 1 False, SHIFT 5843]),
     (1934, [Entry 1 False, SHIFT 5847]), (1936, [Entry 1 False, SHIFT 5850]),
     (1938, [Entry 1 False, SHIFT 5853]), (1940, [Entry 1 False, SHIFT 3988]),
     (1942, [Entry 1 False, SHIFT 5860]), (1944, [Entry 1 False, SHIFT 5875]),
     (1946, [Entry 1 False, SHIFT 5891]), (1948, [Entry 1 False, SHIFT 5915]),
     (1950, [Entry 1 False, SHIFT 5933]), (1952, [Entry 1 False, SHIFT 5944]),
     (1954, [Entry 1 False, SHIFT 5951]), (1956, [Entry 1 False, SHIFT 5955]),
     (1958, [Entry 1 False, SHIFT 5958]), (1960, [Entry 1 False, SHIFT 5999]),
     (1962, [Entry 1 False, SHIFT 6049]), (1964, [Entry 1 False, SHIFT 6060]),
     (1966, [Entry 1 False, SHIFT 6067]), (1968, [Entry 1 False, SHIFT 6071]),
     (1970, [Entry 1 False, SHIFT 6074]), (1972, [Entry 1 False, SHIFT 6097]),
     (1974, [Entry 1 False, SHIFT 6104]), (1976, [Entry 1 False, SHIFT 6108]),
     (1978, [Entry 1 False, SHIFT 6111]), (1980, [Entry 1 False, SHIFT 7167]),
     (1982, [Entry 1 False, SHIFT 6124]), (1984, [Entry 1 False, SHIFT 6127]),
     (1986, [Entry 1 False, SHIFT 6130]), (1988, [Entry 1 False, SHIFT 5281]),
     (1990, [Entry 1 False, SHIFT 6137]), (1992, [Entry 1 False, SHIFT 6152]),
     (1994, [Entry 1 False, SHIFT 6168]), (1996, [Entry 1 False, SHIFT 6191]),
     (1998, [Entry 1 False, SHIFT 6209]), (2000, [Entry 1 False, SHIFT 6220]),
     (2002, [Entry 1 False, SHIFT 6227]), (2004, [Entry 1 False, SHIFT 6231]),
     (2006, [Entry 1 False, SHIFT 6234]), (2008, [Entry 1 False, SHIFT 6275]),
     (2010, [Entry 1 False, SHIFT 6315]), (2012, [Entry 1 False, SHIFT 6333]),
     (2014, [Entry 1 False, SHIFT 6344]), (2016, [Entry 1 False, SHIFT 6351]),
     (2018, [Entry 1 False, SHIFT 6355]), (2020, [Entry 1 False, SHIFT 6358]),
     (2022, [Entry 1 False, SHIFT 6399]), (2024, [Entry 1 False, SHIFT 6440]),
     (2026, [Entry 1 False, SHIFT 5350]), (2028, [Entry 1 False, SHIFT 5373]),
     (2030, [Entry 1 False, SHIFT 5380]), (2032, [Entry 1 False, SHIFT 5398]),
     (2034, [Entry 1 False, SHIFT 6584]), (2036, [Entry 1 False, SHIFT 7179]),
     (2038, [Entry 1 False, SHIFT 4821]), (2040, [Entry 1 False, SHIFT 6595]),
     (2042, [Entry 1 False, SHIFT 6600]), (2044, [Entry 1 False, SHIFT 5197]),
     (2046, [Entry 1 False, SHIFT 5195]), (2048, [Entry 1 False, SHIFT 7182]),
     (2050, [Entry 1 False, SHIFT 6637]), (2052, [Entry 1 False, SHIFT 3417]),
     (2054, [Entry 1 False, SHIFT 6875]), (2056, [Entry 1 False, SHIFT 6656]),
     (2058, [Entry 1 False, SHIFT 6660]), (2060, [Entry 1 False, SHIFT 6663]),
     (2062, [Entry 1 False, SHIFT 6667]), (2064, [Entry 1 False, SHIFT 6933]),
     (2066, [Entry 1 False, SHIFT 4035]), (2068, [Entry 1 False, SHIFT 6678]),
     (2070, [Entry 1 False, SHIFT 6699]), (2072, [Entry 1 False, SHIFT 6707]),
     (2074, [Entry 1 False, SHIFT 6711]), (2076, [Entry 1 False, SHIFT 6714]),
     (2078, [Entry 1 False, SHIFT 6717]), (2080, [Entry 1 False, SHIFT 3572]),
     (2082, [Entry 1 False, SHIFT 6724]), (2084, [Entry 1 False, SHIFT 3612]),
     (2086, [Entry 1 False, SHIFT 6738]), (2088, [Entry 1 False, SHIFT 6742]),
     (2090, [Entry 1 False, SHIFT 4441]), (2092, [Entry 1 True, SHIFT 3028]),
     (2094, [Entry 1 False, SHIFT 7475]), (2096, [Entry 1 False, SHIFT 7486]),
     (2098, [Entry 1 False, SHIFT 6850]), (2100, [Entry 1 False, SHIFT 6953]),
     (2102, [Entry 1 False, SHIFT 7628]), (2104, [Entry 1 False, SHIFT 7633]),
     (2106, [Entry 1 True, SHIFT 2996]), (2108, [Entry 1 False, SHIFT 4162]),
     (2110, [Entry 1 True, SHIFT 2984]), (2112, [Entry 1 False, SHIFT 6853]),
     (2114, [Entry 1 True, SHIFT 2968]), (2116, [Entry 1 False, SHIFT 6593]),
     (2118, [Entry 1 False, SHIFT 6578]), (2120, [Entry 1 False, SHIFT 4929]),
     (2122, [Entry 1 False, SHIFT 7170]), (2124, [Entry 1 False, SHIFT 6276]),
     (2126, [Entry 1 False, SHIFT 7165]), (2128, [Entry 1 False, SHIFT 6594]),
     (2130, [Entry 1 False, SHIFT 6756]), (2132, [Entry 1 False, SHIFT 6591]),
     (2134, [Entry 1 False, SHIFT 4706]), (2136, [Entry 1 False, SHIFT 7178]),
     (2138, [Entry 1 False, SHIFT 6859]), (2140, [Entry 1 False, SHIFT 6768]),
     (2142, [Entry 1 False, SHIFT 7504]), (2144, [Entry 1 False, SHIFT 7505]),
     (2146, [Entry 1 False, SHIFT 7532]), (2148, [Entry 1 False, SHIFT 3309]),
     (2150, [Entry 1 False, SHIFT 7657]), (2152, [Entry 1 False, SHIFT 7658]),
     (2154, [Entry 1 False, SHIFT 7569]), (2156, [Entry 1 False, SHIFT 5101])]"

lemma ts_parse_actions_7_tiled: "tiled_from 1858 ts_parse_actions_7 \<and> after_runs 1858 ts_parse_actions_7 = 2158"
  unfolding ts_parse_actions_7_def by (simp cong: runs_weak)

lemma ts_parse_actions_7_ok: "list_all (\<lambda>(i, es). group_ok es) ts_parse_actions_7"
  unfolding ts_parse_actions_7_def
  by (simp add: group_ok_simps entry_action_ok_simps del: One_nat_def group_ok.simps cong: list_all_weak)

lemma row_actions_7_start: "map fst ts_parse_actions_7 = row_actions_7"
  by (simp add: row_actions_7_def ts_parse_actions_7_def)

text \<open>Lines 481771 to 481920.\<close>

definition ts_parse_actions_8 :: "(nat \<times> TSParseActionEntry list) list" where
  "ts_parse_actions_8 =
    [(2158, [Entry 1 False, SHIFT 7895]), (2160, [Entry 1 False, SHIFT 3737]),
     (2162, [Entry 1 False, SHIFT 7181]), (2164, [Entry 1 False, SHIFT 6739]),
     (2166, [Entry 1 True, SHIFT 3023]), (2168, [Entry 1 False, SHIFT 2162]),
     (2170, [Entry 1 True, SHIFT 2990]), (2172, [Entry 1 False, SHIFT 2526]),
     (2174, [Entry 1 True, SHIFT 2992]), (2176, [Entry 1 False, SHIFT 2510]),
     (2178, [Entry 1 True, SHIFT 2988]), (2180, [Entry 1 False, SHIFT 2524]),
     (2182, [Entry 1 True, SHIFT 2993]), (2184, [Entry 1 False, SHIFT 2457]),
     (2186, [Entry 1 True, SHIFT 2970]), (2188, [Entry 1 False, SHIFT 2434]),
     (2190, [Entry 1 True, SHIFT 2976]), (2192, [Entry 1 False, SHIFT 2473]),
     (2194, [Entry 1 True, SHIFT 2977]), (2196, [Entry 1 False, SHIFT 2477]),
     (2198, [Entry 1 True, SHIFT 2980]), (2200, [Entry 1 False, SHIFT 2482]),
     (2202, [Entry 1 True, SHIFT 2972]), (2204, [Entry 1 False, SHIFT 2463]),
     (2206, [Entry 1 True, SHIFT 2981]), (2208, [Entry 1 False, SHIFT 2449]),
     (2210, [Entry 1 True, SHIFT 2973]), (2212, [Entry 1 False, SHIFT 2466]),
     (2214, [Entry 1 True, SHIFT 2986]), (2216, [Entry 1 False, SHIFT 2521]),
     (2218, [Entry 1 True, SHIFT 2959]), (2220, [Entry 1 False, SHIFT 2438]),
     (2222, [Entry 1 True, SHIFT 2997]), (2224, [Entry 1 False, SHIFT 7232]),
     (2226, [Entry 1 True, SHIFT 2998]), (2228, [Entry 1 False, SHIFT 7233]),
     (2230, [Entry 1 True, SHIFT 2999]), (2232, [Entry 1 False, SHIFT 7234]),
     (2234, [Entry 1 True, SHIFT 3000]), (2236, [Entry 1 False, SHIFT 7237]),
     (2238, [Entry 1 True, SHIFT 3001]), (2240, [Entry 1 False, SHIFT 7238]),
     (2242, [Entry 1 True, SHIFT 3002]), (2244, [Entry 1 False, SHIFT 7239]),
     (2246, [Entry 1 True, SHIFT 2995]), (2248, [Entry 1 False, SHIFT 2504]),
     (2250, [Entry 1 True, SHIFT 3004]), (2252, [Entry 1 False, SHIFT 7247]),
     (2254, [Entry 1 True, SHIFT 3005]), (2256, [Entry 1 False, SHIFT 7250]),
     (2258, [Entry 1 True, SHIFT 3006]), (2260, [Entry 1 False, SHIFT 7251]),
     (2262, [Entry 1 True, SHIFT 3007]), (2264, [Entry 1 False, SHIFT 7254]),
     (2266, [Entry 1 True, SHIFT 3008]), (2268, [Entry 1 False, SHIFT 7263]),
     (2270, [Entry 1 True, SHIFT 3009]), (2272, [Entry 1 False, SHIFT 7270]),
     (2274, [Entry 1 True, SHIFT 3010]), (2276, [Entry 1 False, SHIFT 7277]),
     (2278, [Entry 1 True, SHIFT 3011]), (2280, [Entry 1 False, SHIFT 7278]),
     (2282, [Entry 1 True, SHIFT 3012]), (2284, [Entry 1 False, SHIFT 7303]),
     (2286, [Entry 1 True, SHIFT 3013]), (2288, [Entry 1 False, SHIFT 2287]),
     (2290, [Entry 1 True, SHIFT 3014]), (2292, [Entry 1 False, SHIFT 2293]),
     (2294, [Entry 1 True, SHIFT 3015]), (2296, [Entry 1 False, SHIFT 2294]),
     (2298, [Entry 1 True, SHIFT 3016]), (2300, [Entry 1 False, SHIFT 2297]),
     (2302, [Entry 1 True, SHIFT 3017]), (2304, [Entry 1 False, SHIFT 2131]),
     (2306, [Entry 1 True, SHIFT 3018]), (2308, [Entry 1 False, SHIFT 2306]),
     (2310, [Entry 1 True, SHIFT 3019]), (2312, [Entry 1 False, SHIFT 2144]),
     (2314, [Entry 1 True, SHIFT 3020]), (2316, [Entry 1 False, SHIFT 2145]),
     (2318, [Entry 1 True, SHIFT 3021]), (2320, [Entry 1 False, SHIFT 2158]),
     (2322, [Entry 1 True, SHIFT 3022]), (2324, [Entry 1 False, SHIFT 2159]),
     (2326, [Entry 1 True, SHIFT 2985]), (2328, [Entry 1 False, SHIFT 2417]),
     (2330, [Entry 1 True, SHIFT 3024]), (2332, [Entry 1 False, SHIFT 2174]),
     (2334, [Entry 1 True, SHIFT 3025]), (2336, [Entry 1 False, SHIFT 2188]),
     (2338, [Entry 1 True, SHIFT 3026]), (2340, [Entry 1 False, SHIFT 2195]),
     (2342, [Entry 1 True, SHIFT 3027]), (2344, [Entry 1 False, SHIFT 2196]),
     (2346, [Entry 1 True, SHIFT 2987]), (2348, [Entry 1 False, SHIFT 2227]),
     (2350, [Entry 1 True, SHIFT 2982]), (2352, [Entry 1 False, SHIFT 2527]),
     (2354, [Entry 1 True, SHIFT 3003]), (2356, [Entry 1 False, SHIFT 7246]),
     (2358, [Entry 1 False, SHIFT 2238]), (2360, [Entry 1 False, SHIFT 2501]),
     (2362, [Entry 1 False, SHIFT 6771]), (2364, [Entry 1 False, SHIFT 4877]),
     (2366, [Entry 1 False, SHIFT 2472]), (2368, [Entry 1 False, SHIFT 2427]),
     (2370, [Entry 1 False, SHIFT 2437]), (2372, [Entry 1 False, SHIFT 2444]),
     (2374, [Entry 1 False, SHIFT 6508]), (2376, [Entry 1 False, SHIFT 2460]),
     (2378, [Entry 1 False, SHIFT 2474]), (2380, [Entry 1 False, SHIFT 2479]),
     (2382, [Entry 1 False, SHIFT 6504]), (2384, [Entry 1 False, SHIFT 4932]),
     (2386, [Entry 1 False, SHIFT 6759]), (2388, [Entry 1 False, SHIFT 2502]),
     (2390, [Entry 1 False, SHIFT 2506]), (2392, [Entry 1 False, SHIFT 2420]),
     (2394, [Entry 1 False, SHIFT 2443]), (2396, [Entry 1 False, SHIFT 2415]),
     (2398, [Entry 1 False, SHIFT 2509]), (2400, [Entry 1 False, SHIFT 2547]),
     (2402, [Entry 1 False, SHIFT 2490]), (2404, [Entry 1 False, SHIFT 2513]),
     (2406, [Entry 1 False, SHIFT 7236]), (2408, [Entry 1 False, SHIFT 2516]),
     (2410, [Entry 1 False, SHIFT 6552]), (2412, [Entry 1 False, SHIFT 2517]),
     (2414, [Entry 1 False, SHIFT 7241]), (2416, [Entry 1 False, SHIFT 7243]),
     (2418, [Entry 1 False, SHIFT 7244]), (2420, [Entry 1 False, SHIFT 2413]),
     (2422, [Entry 1 False, SHIFT 6630]), (2424, [Entry 1 False, SHIFT 7249]),
     (2426, [Entry 1 False, SHIFT 4140]), (2428, [Entry 1 False, SHIFT 6586]),
     (2430, [Entry 1 False, SHIFT 7253]), (2432, [Entry 1 False, SHIFT 2523]),
     (2434, [Entry 1 False, SHIFT 7369]), (2436, [Entry 1 False, SHIFT 7257]),
     (2438, [Entry 1 False, SHIFT 2485]), (2440, [Entry 1 False, SHIFT 7262]),
     (2442, [Entry 1 False, SHIFT 2448]), (2444, [Entry 1 False, SHIFT 7265]),
     (2446, [Entry 1 False, SHIFT 7267]), (2448, [Entry 1 False, SHIFT 7268]),
     (2450, [Entry 1 False, SHIFT 2462]), (2452, [Entry 1 False, SHIFT 7272]),
     (2454, [Entry 1 False, SHIFT 7274]), (2456, [Entry 1 False, SHIFT 7275])]"

lemma ts_parse_actions_8_tiled: "tiled_from 2158 ts_parse_actions_8 \<and> after_runs 2158 ts_parse_actions_8 = 2458"
  unfolding ts_parse_actions_8_def by (simp cong: runs_weak)

lemma ts_parse_actions_8_ok: "list_all (\<lambda>(i, es). group_ok es) ts_parse_actions_8"
  unfolding ts_parse_actions_8_def
  by (simp add: group_ok_simps entry_action_ok_simps del: One_nat_def group_ok.simps cong: list_all_weak)

lemma row_actions_8_start: "map fst ts_parse_actions_8 = row_actions_8"
  by (simp add: row_actions_8_def ts_parse_actions_8_def)

text \<open>Lines 481921 to 482070.\<close>

definition ts_parse_actions_9 :: "(nat \<times> TSParseActionEntry list) list" where
  "ts_parse_actions_9 =
    [(2458, [Entry 1 False, SHIFT 2476]), (2460, [Entry 1 False, SHIFT 2511]),
     (2462, [Entry 1 False, SHIFT 7280]), (2464, [Entry 1 False, SHIFT 7208]),
     (2466, [Entry 1 False, SHIFT 7283]), (2468, [Entry 1 False, SHIFT 7285]),
     (2470, [Entry 1 False, SHIFT 7288]), (2472, [Entry 1 False, SHIFT 7289]),
     (2474, [Entry 1 False, SHIFT 7291]), (2476, [Entry 1 False, SHIFT 7294]),
     (2478, [Entry 1 False, SHIFT 7296]), (2480, [Entry 1 False, SHIFT 7297]),
     (2482, [Entry 1 False, SHIFT 7299]), (2484, [Entry 1 False, SHIFT 7302]),
     (2486, [Entry 1 False, SHIFT 2522]), (2488, [Entry 1 False, SHIFT 7305]),
     (2490, [Entry 1 False, SHIFT 7307]), (2492, [Entry 1 False, SHIFT 7308]),
     (2494, [Entry 1 False, SHIFT 7311]), (2496, [Entry 1 False, SHIFT 7314]),
     (2498, [Entry 1 False, SHIFT 7317]), (2500, [Entry 1 False, SHIFT 7319]),
     (2502, [Entry 1 False, SHIFT 7321]), (2504, [Entry 1 False, SHIFT 7324]),
     (2506, [Entry 1 False, SHIFT 7326]), (2508, [Entry 1 False, SHIFT 7329]),
     (2510, [Entry 1 False, SHIFT 7330]), (2512, [Entry 1 False, SHIFT 7332]),
     (2514, [Entry 1 False, SHIFT 7335]), (2516, [Entry 1 False, SHIFT 7338]),
     (2518, [Entry 1 False, SHIFT 7342]), (2520, [Entry 1 False, SHIFT 7345]),
     (2522, [Entry 1 False, SHIFT 7348]), (2524, [Entry 1 False, SHIFT 7350]),
     (2526, [Entry 1 False, SHIFT 7355]), (2528, [Entry 1 False, SHIFT 2446]),
     (2530, [Entry 1 False, SHIFT 2454]), (2532, [Entry 1 False, SHIFT 2455]),
     (2534, [Entry 1 False, SHIFT 2296]), (2536, [Entry 1 False, SHIFT 2491]),
     (2538, [Entry 1 False, SHIFT 2494]), (2540, [Entry 1 False, SHIFT 2469]),
     (2542, [Entry 1 False, SHIFT 2139]), (2544, [Entry 1 False, SHIFT 2141]),
     (2546, [Entry 1 False, SHIFT 2142]), (2548, [Entry 1 False, SHIFT 7168]),
     (2550, [Entry 1 False, SHIFT 3576]), (2552, [Entry 1 False, SHIFT 2147]),
     (2554, [Entry 1 False, SHIFT 2497]), (2556, [Entry 1 False, SHIFT 6937]),
     (2558, [Entry 1 False, SHIFT 2161]), (2560, [Entry 1 False, SHIFT 7174]),
     (2562, [Entry 1 False, SHIFT 2167]), (2564, [Entry 1 False, SHIFT 2168]),
     (2566, [Entry 1 False, SHIFT 2170]), (2568, [Entry 1 False, SHIFT 2173]),
     (2570, [Entry 1 False, SHIFT 2176]), (2572, [Entry 1 False, SHIFT 2178]),
     (2574, [Entry 1 False, SHIFT 2179]), (2576, [Entry 1 False, SHIFT 2190]),
     (2578, [Entry 1 False, SHIFT 2192]), (2580, [Entry 1 False, SHIFT 2193]),
     (2582, [Entry 1 False, SHIFT 6575]), (2584, [Entry 1 False, SHIFT 2487]),
     (2586, [Entry 1 False, SHIFT 2198]), (2588, [Entry 1 False, SHIFT 2200]),
     (2590, [Entry 1 False, SHIFT 2203]), (2592, [Entry 1 False, SHIFT 2205]),
     (2594, [Entry 1 False, SHIFT 2208]), (2596, [Entry 1 False, SHIFT 2209]),
     (2598, [Entry 1 False, SHIFT 2211]), (2600, [Entry 1 False, SHIFT 2214]),
     (2602, [Entry 1 False, SHIFT 2220]), (2604, [Entry 1 False, SHIFT 2221]),
     (2606, [Entry 1 False, SHIFT 2223]), (2608, [Entry 1 False, SHIFT 2226]),
     (2610, [Entry 1 False, SHIFT 2532]), (2612, [Entry 1 False, SHIFT 2229]),
     (2614, [Entry 1 False, SHIFT 2231]), (2616, [Entry 1 False, SHIFT 2232]),
     (2618, [Entry 1 False, SHIFT 2235]), (2620, [Entry 1 False, SHIFT 2481]),
     (2622, [Entry 1 False, SHIFT 2241]), (2624, [Entry 1 False, SHIFT 2243]),
     (2626, [Entry 1 False, SHIFT 2246]), (2628, [Entry 1 False, SHIFT 2249]),
     (2630, [Entry 1 False, SHIFT 2251]), (2632, [Entry 1 False, SHIFT 2254]),
     (2634, [Entry 1 False, SHIFT 2255]), (2636, [Entry 1 False, SHIFT 2257]),
     (2638, [Entry 1 False, SHIFT 2260]), (2640, [Entry 1 False, SHIFT 2263]),
     (2642, [Entry 1 False, SHIFT 2267]), (2644, [Entry 1 False, SHIFT 2270]),
     (2646, [Entry 1 False, SHIFT 2273]), (2648, [Entry 1 False, SHIFT 2275]),
     (2650, [Entry 1 False, SHIFT 2280]), (2652, [Entry 1 False, SHIFT 2480]),
     (2654, [Entry 1 False, SHIFT 2419]), (2656, [Entry 1 False, SHIFT 2425]),
     (2658, [Entry 1 False, SHIFT 2430]), (2660, [Entry 1 False, SHIFT 2467]),
     (2662, [Entry 1 False, SHIFT 2410]), (2664, [Entry 1 False, SHIFT 2542]),
     (2666, [Entry 1 False, SHIFT 2412]), (2668, [Entry 1 False, SHIFT 2540]),
     (2670, [Entry 1 False, SHIFT 2545]), (2672, [Entry 1 False, SHIFT 2546]),
     (2674, [Entry 1 False, SHIFT 6580]), (2676, [Entry 1 False, SHIFT 7259]),
     (2678, [Entry 1 False, REDUCE sym_begin_path_expression 1 0 0]),
     (2680, [Entry 1 True, REDUCE sym_begin_path_expression 1 0 0]),
     (2682, [Entry 1 True, SHIFT 34]),
     (2684, [Entry 2 False, REDUCE sym_begin_path_expression 1 0 0, SHIFT 7655]),
     (2687, [Entry 1 True, SHIFT 1131]), (2689, [Entry 1 False, REDUCE sym_super_invocation 1 0 4]),
     (2691, [Entry 1 True, REDUCE sym_super_invocation 1 0 4]),
     (2693, [Entry 1 True, REDUCE sym_ERR_unexpected_super_in_path 1 0 0]),
     (2695, [Entry 1 True, SHIFT 1140]),
     (2697, [Entry 1 False, REDUCE aux_sym_deref_expression_repeat1 2 0 0]),
     (2699, [Entry 1 True, REDUCE aux_sym_deref_expression_repeat1 2 0 0]),
     (2701, [Entry 2 True, REDUCE aux_sym_deref_expression_repeat1 2 0 0, SHIFT_REPEAT 1131]),
     (2704, [Entry 1 False, REDUCE sym_deref_expression 2 0 0]),
     (2706, [Entry 1 True, REDUCE sym_deref_expression 2 0 0]),
     (2708, [Entry 1 False, REDUCE sym_any_invocation_kind 2 0 60]),
     (2710, [Entry 1 True, REDUCE sym_any_invocation_kind 2 0 60]),
     (2712, [Entry 2 False, REDUCE sym_any_invocation_kind 2 0 60, SHIFT 7655]),
     (2715, [Entry 1 False, REDUCE sym_any_invocation_kind 3 0 146]),
     (2717, [Entry 1 True, REDUCE sym_any_invocation_kind 3 0 146]),
     (2719, [Entry 2 False, REDUCE sym_any_invocation_kind 3 0 146, SHIFT 7655]),
     (2722, [Entry 1 False, REDUCE sym_unary_operator 2 0 57]),
     (2724, [Entry 1 True, REDUCE sym_unary_operator 2 0 57]),
     (2726, [Entry 1 False, REDUCE sym_assignment 2 0 0]), (2728, [Entry 1 True, SHIFT 2432]),
     (2730, [Entry 1 True, REDUCE sym_assignment 2 0 0]), (2732, [Entry 1 False, SHIFT 2424]),
     (2734, [Entry 1 False, SHIFT 2436]), (2736, [Entry 1 True, SHIFT 65]),
     (2738, [Entry 1 True, SHIFT 66]), (2740, [Entry 1 False, SHIFT 2461]),
     (2742, [Entry 1 True, SHIFT 2461]), (2744, [Entry 1 False, SHIFT 67]),
     (2746, [Entry 1 False, SHIFT 68]), (2748, [Entry 1 False, SHIFT 66]),
     (2750, [Entry 1 False, REDUCE sym_ERR_missing_dot_in_assignment 2 0 0]),
     (2752, [Entry 1 True, REDUCE sym_ERR_missing_dot_in_assignment 2 0 0]),
     (2754, [Entry 1 False, REDUCE sym_ERR_missing_equal_in_assignment 2 (-2) 0]),
     (2756, [Entry 1 True, REDUCE sym_ERR_missing_equal_in_assignment 2 (-2) 0]),
     (2758, [Entry 1 False, REDUCE sym_ERR_output_assign_in_assignment 2 0 0]),
     (2760, [Entry 1 True, REDUCE sym_ERR_output_assign_in_assignment 2 0 0])]"

lemma ts_parse_actions_9_tiled: "tiled_from 2458 ts_parse_actions_9 \<and> after_runs 2458 ts_parse_actions_9 = 2762"
  unfolding ts_parse_actions_9_def by (simp cong: runs_weak)

lemma ts_parse_actions_9_ok: "list_all (\<lambda>(i, es). group_ok es) ts_parse_actions_9"
  unfolding ts_parse_actions_9_def
  by (simp add: group_ok_simps entry_action_ok_simps del: One_nat_def group_ok.simps cong: list_all_weak)

lemma row_actions_9_start: "map fst ts_parse_actions_9 = row_actions_9"
  by (simp add: row_actions_9_def ts_parse_actions_9_def)

text \<open>Lines 482071 to 482220.\<close>

definition ts_parse_actions_10 :: "(nat \<times> TSParseActionEntry list) list" where
  "ts_parse_actions_10 =
    [(2762, [Entry 1 False, REDUCE sym_power_operator 3 0 136]),
     (2764, [Entry 1 True, REDUCE sym_power_operator 3 0 136]),
     (2766, [Entry 1 False, REDUCE sym_and_operator 3 0 136]),
     (2768, [Entry 1 True, REDUCE sym_and_operator 3 0 136]),
     (2770, [Entry 1 False, REDUCE sym_or_operator 3 0 136]),
     (2772, [Entry 1 True, REDUCE sym_or_operator 3 0 136]),
     (2774, [Entry 1 False, REDUCE sym_xor_operator 3 0 136]),
     (2776, [Entry 1 True, REDUCE sym_xor_operator 3 0 136]),
     (2778, [Entry 1 False, REDUCE sym_eq_operator 3 0 137]),
     (2780, [Entry 1 True, REDUCE sym_eq_operator 3 0 137]),
     (2782, [Entry 1 False, REDUCE sym_ord_operator 3 0 137]),
     (2784, [Entry 1 True, REDUCE sym_ord_operator 3 0 137]),
     (2786, [Entry 1 False, REDUCE sym_add_operator 3 0 137]),
     (2788, [Entry 1 True, REDUCE sym_add_operator 3 0 137]),
     (2790, [Entry 1 False, REDUCE sym_mult_operator 3 0 137]),
     (2792, [Entry 1 True, REDUCE sym_mult_operator 3 0 137]),
     (2794, [Entry 1 False, REDUCE sym_ERR_unexpected_this_in_path 1 0 0]),
     (2796, [Entry 1 True, REDUCE sym_ERR_unexpected_this_in_path 1 0 0]),
     (2798, [Entry 1 False, REDUCE sym_this_invocation 1 0 3]),
     (2800, [Entry 1 True, REDUCE sym_this_invocation 1 0 3]),
     (2802, [Entry 1 False, REDUCE sym_path_expression 1 0 0]),
     (2804, [Entry 1 True, REDUCE sym_path_expression 1 0 0]),
     (2806, [Entry 1 False, REDUCE aux_sym_deref_expression_repeat1 1 0 24]),
     (2808, [Entry 1 True, REDUCE aux_sym_deref_expression_repeat1 1 0 24]),
     (2810, [Entry 1 False, REDUCE sym_var_access 1 0 0]),
     (2812, [Entry 1 True, REDUCE sym_var_access 1 0 0]),
     (2814, [Entry 1 False, REDUCE sym_field_expression 3 0 62]),
     (2816, [Entry 1 True, REDUCE sym_field_expression 3 0 62]),
     (2818, [Entry 1 False, REDUCE sym_var_access 1 0 6]),
     (2820, [Entry 1 True, REDUCE sym_var_access 1 0 6]),
     (2822, [Entry 1 False, REDUCE sym_index_expression 4 0 147]),
     (2824, [Entry 1 True, REDUCE sym_index_expression 4 0 147]),
     (2826, [Entry 1 False, REDUCE sym_any_invocation 1 0 8]),
     (2828, [Entry 1 True, REDUCE sym_any_invocation 1 0 8]),
     (2830, [Entry 2 False, REDUCE sym_any_invocation 1 0 8, SHIFT 7457]),
     (2833, [Entry 1 True, SHIFT 1147]),
     (2835, [Entry 1 False, REDUCE sym_ERR_unexpected_super_in_path 1 0 0]),
     (2837, [Entry 1 False, REDUCE sym_variable 1 0 0]),
     (2839, [Entry 1 True, REDUCE sym_variable 1 0 0]),
     (2841, [Entry 2 True, REDUCE sym_variable 1 0 0, SHIFT 21]),
     (2844, [Entry 1 True, SHIFT 10081]), (2846, [Entry 1 False, REDUCE sym_invocation 1 0 0]),
     (2848, [Entry 1 True, REDUCE sym_invocation 1 0 0]),
     (2850, [Entry 1 False, REDUCE sym_super_body_invocation 2 0 4]),
     (2852, [Entry 1 True, REDUCE sym_super_body_invocation 2 0 4]),
     (2854, [Entry 1 False, REDUCE sym_any_invocation 2 0 8]),
     (2856, [Entry 1 True, REDUCE sym_any_invocation 2 0 8]),
     (2858, [Entry 1 False, REDUCE sym_offset 2 0 0]),
     (2860, [Entry 1 True, REDUCE sym_offset 2 0 0]), (2862, [Entry 1 False, SHIFT 10307]),
     (2864, [Entry 1 False, REDUCE sym_offset 1 0 0]),
     (2866, [Entry 1 True, REDUCE sym_offset 1 0 0]),
     (2868, [Entry 1 False, REDUCE aux_sym_relative_offset_repeat1 2 0 0]),
     (2870, [Entry 1 True, REDUCE aux_sym_relative_offset_repeat1 2 0 0]),
     (2872, [Entry 2 False, REDUCE aux_sym_relative_offset_repeat1 2 0 0, SHIFT_REPEAT 10307]),
     (2875, [Entry 1 False, REDUCE sym_variable_access 1 0 7]),
     (2877, [Entry 1 True, REDUCE sym_variable_access 1 0 7]), (2879, [Entry 1 False, SHIFT 8044]),
     (2881, [Entry 1 False, REDUCE sym_any_invocation_kind 1 0 0]),
     (2883, [Entry 1 True, REDUCE sym_any_invocation_kind 1 0 0]),
     (2885, [Entry 2 False, REDUCE sym_any_invocation_kind 1 0 0, SHIFT 7459]),
     (2888, [Entry 1 False, REDUCE sym_direct_variable 3 0 44]),
     (2890, [Entry 1 True, REDUCE sym_direct_variable 3 0 44]),
     (2892, [Entry 1 False, REDUCE sym_direct_variable 3 0 45]),
     (2894, [Entry 1 True, REDUCE sym_direct_variable 3 0 45]),
     (2896, [Entry 1 False, REDUCE sym_multibit_part_access 2 0 60]),
     (2898, [Entry 1 True, REDUCE sym_multibit_part_access 2 0 60]),
     (2900, [Entry 1 False, REDUCE sym_ref_addr 4 0 256]),
     (2902, [Entry 1 True, REDUCE sym_ref_addr 4 0 256]),
     (2904, [Entry 1 False, REDUCE sym_pack_element 5 0 458]),
     (2906, [Entry 1 True, REDUCE sym_pack_element 5 0 458]),
     (2908, [Entry 1 False, REDUCE sym_fold_operator 1 0 117]),
     (2910, [Entry 1 True, REDUCE sym_fold_operator 1 0 117]),
     (2912, [Entry 1 False, REDUCE sym_fold_operator 1 0 118]),
     (2914, [Entry 1 True, REDUCE sym_fold_operator 1 0 118]),
     (2916, [Entry 1 False, REDUCE sym_fold_operator 1 0 119]),
     (2918, [Entry 1 True, REDUCE sym_fold_operator 1 0 119]),
     (2920, [Entry 1 False, REDUCE sym_fold_operator 1 0 120]),
     (2922, [Entry 1 True, REDUCE sym_fold_operator 1 0 120]),
     (2924, [Entry 1 False, REDUCE sym_variable_access 2 0 22]),
     (2926, [Entry 1 True, REDUCE sym_variable_access 2 0 22]),
     (2928, [Entry 1 False, REDUCE sym_fold_operator 1 0 121]),
     (2930, [Entry 1 True, REDUCE sym_fold_operator 1 0 121]),
     (2932, [Entry 1 False, REDUCE sym_fold_operator 1 0 122]),
     (2934, [Entry 1 True, REDUCE sym_fold_operator 1 0 122]),
     (2936, [Entry 1 False, REDUCE sym_fold_operator 1 0 123]),
     (2938, [Entry 1 True, REDUCE sym_fold_operator 1 0 123]),
     (2940, [Entry 1 False, REDUCE sym_multibit 1 0 0]),
     (2942, [Entry 1 True, REDUCE sym_multibit 1 0 0]),
     (2944, [Entry 1 False, REDUCE sym_ref_value 1 0 0]),
     (2946, [Entry 1 True, REDUCE sym_ref_value 1 0 0]),
     (2948, [Entry 1 False, REDUCE sym_fold_operator 1 0 124]),
     (2950, [Entry 1 True, REDUCE sym_fold_operator 1 0 124]),
     (2952, [Entry 1 False, REDUCE sym_fold_operator 1 0 125]),
     (2954, [Entry 1 True, REDUCE sym_fold_operator 1 0 125]),
     (2956, [Entry 1 False, REDUCE sym_fold_operator 1 0 0]),
     (2958, [Entry 1 True, REDUCE sym_fold_operator 1 0 0]),
     (2960, [Entry 1 False, REDUCE sym_multibit 3 0 51]),
     (2962, [Entry 1 True, REDUCE sym_multibit 3 0 51]),
     (2964, [Entry 1 False, REDUCE sym_time_literal 1 0 0]),
     (2966, [Entry 1 True, REDUCE sym_time_literal 1 0 0]),
     (2968, [Entry 1 False, REDUCE sym_fold_operator 1 0 126]),
     (2970, [Entry 1 True, REDUCE sym_fold_operator 1 0 126]),
     (2972, [Entry 1 False, REDUCE sym_fold_operator 1 0 127]),
     (2974, [Entry 1 True, REDUCE sym_fold_operator 1 0 127]),
     (2976, [Entry 1 False, REDUCE sym_fold_operator 1 0 128]),
     (2978, [Entry 1 True, REDUCE sym_fold_operator 1 0 128]),
     (2980, [Entry 1 False, REDUCE sym_fold_operator 1 0 129]),
     (2982, [Entry 1 True, REDUCE sym_fold_operator 1 0 129]),
     (2984, [Entry 1 False, REDUCE sym_fold_operator 1 0 130]),
     (2986, [Entry 1 True, REDUCE sym_fold_operator 1 0 130]),
     (2988, [Entry 1 False, REDUCE sym_fold_expression 3 0 131]),
     (2990, [Entry 1 True, REDUCE sym_fold_expression 3 0 131]),
     (2992, [Entry 1 False, REDUCE sym_int_literal 3 0 133]),
     (2994, [Entry 1 True, REDUCE sym_int_literal 3 0 133]),
     (2996, [Entry 1 False, REDUCE sym_real_literal 3 0 134]),
     (2998, [Entry 1 True, REDUCE sym_real_literal 3 0 134]),
     (3000, [Entry 1 False, REDUCE sym_char_str 1 0 0]),
     (3002, [Entry 1 True, REDUCE sym_char_str 1 0 0]),
     (3004, [Entry 1 False, REDUCE sym_char_literal 3 0 135]),
     (3006, [Entry 1 True, REDUCE sym_char_literal 3 0 135]),
     (3008, [Entry 1 False, REDUCE sym_constant 1 0 0]),
     (3010, [Entry 1 True, REDUCE sym_constant 1 0 0]),
     (3012, [Entry 1 False, REDUCE sym_func_call 3 0 61]),
     (3014, [Entry 1 True, REDUCE sym_func_call 3 0 61]),
     (3016, [Entry 1 False, REDUCE sym_numeric_literal 1 0 0]),
     (3018, [Entry 1 True, REDUCE sym_numeric_literal 1 0 0]),
     (3020, [Entry 1 False, REDUCE sym_real_literal 1 0 20]),
     (3022, [Entry 1 True, REDUCE sym_real_literal 1 0 20]),
     (3024, [Entry 1 False, REDUCE sym_func_call 4 0 145]),
     (3026, [Entry 1 True, REDUCE sym_func_call 4 0 145]),
     (3028, [Entry 1 False, REDUCE sym_bool_literal 1 0 0]),
     (3030, [Entry 1 True, REDUCE sym_bool_literal 1 0 0]),
     (3032, [Entry 1 False, REDUCE sym_func_call 5 0 266]),
     (3034, [Entry 1 True, REDUCE sym_func_call 5 0 266]),
     (3036, [Entry 1 False, REDUCE sym_char_literal 1 0 20]),
     (3038, [Entry 1 True, REDUCE sym_char_literal 1 0 20]),
     (3040, [Entry 1 False, REDUCE sym_parenthesized_expression 3 0 0]),
     (3042, [Entry 1 True, REDUCE sym_parenthesized_expression 3 0 0]),
     (3044, [Entry 1 False, REDUCE sym__primary_expression 1 0 0]),
     (3046, [Entry 1 True, REDUCE sym__primary_expression 1 0 0]),
     (3048, [Entry 1 False, REDUCE sym_ltime 3 0 116]),
     (3050, [Entry 1 True, REDUCE sym_ltime 3 0 116]),
     (3052, [Entry 1 False, REDUCE sym_duration 1 0 0]),
     (3054, [Entry 1 True, REDUCE sym_duration 1 0 0]),
     (3056, [Entry 1 False, REDUCE sym_time_of_day 1 0 0]),
     (3058, [Entry 1 True, REDUCE sym_time_of_day 1 0 0]),
     (3060, [Entry 1 False, REDUCE sym_date 1 0 0]), (3062, [Entry 1 True, REDUCE sym_date 1 0 0]),
     (3064, [Entry 1 False, REDUCE sym_date_and_time 1 0 0])]"

lemma ts_parse_actions_10_tiled: "tiled_from 2762 ts_parse_actions_10 \<and> after_runs 2762 ts_parse_actions_10 = 3066"
  unfolding ts_parse_actions_10_def by (simp cong: runs_weak)

lemma ts_parse_actions_10_ok: "list_all (\<lambda>(i, es). group_ok es) ts_parse_actions_10"
  unfolding ts_parse_actions_10_def
  by (simp add: group_ok_simps entry_action_ok_simps del: One_nat_def group_ok.simps cong: list_all_weak)

lemma row_actions_10_start: "map fst ts_parse_actions_10 = row_actions_10"
  by (simp add: row_actions_10_def ts_parse_actions_10_def)

text \<open>Lines 482221 to 482370.\<close>

definition ts_parse_actions_11 :: "(nat \<times> TSParseActionEntry list) list" where
  "ts_parse_actions_11 =
    [(3066, [Entry 1 True, REDUCE sym_date_and_time 1 0 0]),
     (3068, [Entry 1 False, REDUCE sym__expression 1 0 0]),
     (3070, [Entry 1 True, REDUCE sym__expression 1 0 0]),
     (3072, [Entry 1 False, REDUCE sym_boolean_operator 1 0 0]),
     (3074, [Entry 1 True, REDUCE sym_boolean_operator 1 0 0]),
     (3076, [Entry 1 False, REDUCE sym_comparison_operator 1 0 0]),
     (3078, [Entry 1 True, REDUCE sym_comparison_operator 1 0 0]),
     (3080, [Entry 1 False, REDUCE sym_enum_value 3 0 138]),
     (3082, [Entry 1 True, REDUCE sym_enum_value 3 0 138]),
     (3084, [Entry 1 False, REDUCE sym_signed_int 1 0 0]),
     (3086, [Entry 1 True, REDUCE sym_signed_int 1 0 0]),
     (3088, [Entry 1 False, REDUCE sym_int_literal 1 0 19]),
     (3090, [Entry 1 True, REDUCE sym_int_literal 1 0 19]),
     (3092, [Entry 1 False, REDUCE sym_signed_real_value 1 0 0]),
     (3094, [Entry 1 True, REDUCE sym_signed_real_value 1 0 0]),
     (3096, [Entry 1 False, REDUCE sym_bool_literal_with_string 1 0 20]),
     (3098, [Entry 1 True, REDUCE sym_bool_literal_with_string 1 0 20]),
     (3100, [Entry 1 False, REDUCE sym_bool_literal_with_string 2 0 56]),
     (3102, [Entry 1 True, REDUCE sym_bool_literal_with_string 2 0 56]),
     (3104, [Entry 1 False, REDUCE sym_bool_literal_with_numeric 2 0 56]),
     (3106, [Entry 1 True, REDUCE sym_bool_literal_with_numeric 2 0 56]),
     (3108, [Entry 1 False, REDUCE sym_time 2 0 56]),
     (3110, [Entry 1 True, REDUCE sym_time 2 0 56]),
     (3112, [Entry 1 False, REDUCE sym_ltime 2 0 56]),
     (3114, [Entry 1 True, REDUCE sym_ltime 2 0 56]),
     (3116, [Entry 1 False, REDUCE sym_tod 2 0 56]), (3118, [Entry 1 True, REDUCE sym_tod 2 0 56]),
     (3120, [Entry 1 False, REDUCE sym_ltod 2 0 56]),
     (3122, [Entry 1 True, REDUCE sym_ltod 2 0 56]),
     (3124, [Entry 1 False, REDUCE sym_date_literal 1 0 0]),
     (3126, [Entry 1 True, REDUCE sym_date_literal 1 0 0]),
     (3128, [Entry 1 False, REDUCE sym_short_date 2 0 56]),
     (3130, [Entry 1 True, REDUCE sym_short_date 2 0 56]),
     (3132, [Entry 1 False, REDUCE sym_long_date 2 0 56]),
     (3134, [Entry 1 True, REDUCE sym_long_date 2 0 56]),
     (3136, [Entry 1 False, REDUCE sym_date_and_daytime 1 0 0]),
     (3138, [Entry 1 True, REDUCE sym_date_and_daytime 1 0 0]),
     (3140, [Entry 1 False, REDUCE sym_short_date_and_time 2 0 56]),
     (3142, [Entry 1 True, REDUCE sym_short_date_and_time 2 0 56]),
     (3144, [Entry 1 False, REDUCE sym_long_date_and_time 2 0 56]),
     (3146, [Entry 1 True, REDUCE sym_long_date_and_time 2 0 56]),
     (3148, [Entry 1 False, REDUCE sym_time 3 0 116]),
     (3150, [Entry 1 True, REDUCE sym_time 3 0 116]), (3152, [Entry 1 False, SHIFT 2387]),
     (3154, [Entry 1 False, SHIFT 2380]), (3156, [Entry 1 False, SHIFT 4435]),
     (3158, [Entry 1 False, SHIFT 4465]), (3160, [Entry 1 False, SHIFT 3599]),
     (3162, [Entry 1 False, SHIFT 3606]), (3164, [Entry 1 False, SHIFT 4510]),
     (3166, [Entry 1 False, SHIFT 3616]), (3168, [Entry 1 False, SHIFT 3620]),
     (3170, [Entry 1 False, SHIFT 3624]), (3172, [Entry 1 False, SHIFT 3627]),
     (3174, [Entry 1 False, SHIFT 3631]), (3176, [Entry 1 False, SHIFT 3637]),
     (3178, [Entry 1 False, SHIFT 3641]), (3180, [Entry 1 False, SHIFT 3644]),
     (3182, [Entry 1 False, SHIFT 4538]), (3184, [Entry 1 False, SHIFT 3648]),
     (3186, [Entry 1 False, SHIFT 3651]), (3188, [Entry 1 False, SHIFT 4544]),
     (3190, [Entry 1 False, SHIFT 3655]), (3192, [Entry 1 False, SHIFT 4549]),
     (3194, [Entry 1 False, SHIFT 4568]), (3196, [Entry 1 False, SHIFT 3662]),
     (3198, [Entry 1 False, SHIFT 3667]), (3200, [Entry 1 False, SHIFT 3671]),
     (3202, [Entry 1 False, SHIFT 4589]), (3204, [Entry 1 False, SHIFT 4596]),
     (3206, [Entry 1 False, SHIFT 3678]), (3208, [Entry 1 False, SHIFT 4641]),
     (3210, [Entry 1 False, SHIFT 3688]), (3212, [Entry 1 False, SHIFT 3692]),
     (3214, [Entry 1 False, SHIFT 3696]), (3216, [Entry 1 False, SHIFT 3699]),
     (3218, [Entry 1 False, SHIFT 3703]), (3220, [Entry 1 False, SHIFT 3708]),
     (3222, [Entry 1 False, SHIFT 3712]), (3224, [Entry 1 False, SHIFT 3715]),
     (3226, [Entry 1 False, SHIFT 4681]), (3228, [Entry 1 False, SHIFT 3719]),
     (3230, [Entry 1 False, SHIFT 3723]), (3232, [Entry 1 False, SHIFT 3727]),
     (3234, [Entry 1 False, SHIFT 3734]), (3236, [Entry 1 False, SHIFT 4901]),
     (3238, [Entry 1 False, SHIFT 3744]), (3240, [Entry 1 False, SHIFT 3748]),
     (3242, [Entry 1 False, SHIFT 4908]), (3244, [Entry 1 False, SHIFT 4915]),
     (3246, [Entry 1 False, SHIFT 3767]), (3248, [Entry 1 False, SHIFT 3770]),
     (3250, [Entry 1 False, SHIFT 4936]), (3252, [Entry 1 False, SHIFT 3774]),
     (3254, [Entry 1 False, SHIFT 3777]), (3256, [Entry 1 False, SHIFT 3781]),
     (3258, [Entry 1 False, SHIFT 4948]), (3260, [Entry 1 False, SHIFT 3788]),
     (3262, [Entry 1 False, SHIFT 3792]), (3264, [Entry 1 False, SHIFT 3795]),
     (3266, [Entry 1 False, SHIFT 3799]), (3268, [Entry 1 False, SHIFT 3802]),
     (3270, [Entry 1 False, SHIFT 4984]), (3272, [Entry 1 False, SHIFT 3806]),
     (3274, [Entry 1 False, SHIFT 3813]), (3276, [Entry 1 False, SHIFT 3819]),
     (3278, [Entry 1 False, SHIFT 4008]), (3280, [Entry 1 False, SHIFT 4011]),
     (3282, [Entry 1 False, SHIFT 5002]), (3284, [Entry 1 False, SHIFT 4015]),
     (3286, [Entry 1 False, SHIFT 4018]), (3288, [Entry 1 False, SHIFT 5019]),
     (3290, [Entry 1 False, SHIFT 4022]), (3292, [Entry 1 False, SHIFT 5030]),
     (3294, [Entry 1 False, SHIFT 4029]), (3296, [Entry 1 False, SHIFT 5041]),
     (3298, [Entry 1 False, SHIFT 4048]), (3300, [Entry 1 False, SHIFT 4051]),
     (3302, [Entry 1 False, SHIFT 4055]), (3304, [Entry 1 False, SHIFT 4064]),
     (3306, [Entry 1 False, SHIFT 5067]), (3308, [Entry 1 False, SHIFT 4068]),
     (3310, [Entry 1 False, SHIFT 5128]), (3312, [Entry 1 False, SHIFT 4075]),
     (3314, [Entry 1 False, SHIFT 5135]), (3316, [Entry 1 False, SHIFT 4085]),
     (3318, [Entry 1 False, SHIFT 4089]), (3320, [Entry 1 False, SHIFT 4093]),
     (3322, [Entry 1 False, SHIFT 4100]), (3324, [Entry 1 False, SHIFT 4110]),
     (3326, [Entry 1 False, SHIFT 5214]), (3328, [Entry 1 False, SHIFT 4119]),
     (3330, [Entry 1 False, SHIFT 5219]), (3332, [Entry 1 False, SHIFT 4123]),
     (3334, [Entry 1 False, SHIFT 5313]), (3336, [Entry 1 False, SHIFT 4145]),
     (3338, [Entry 1 False, SHIFT 4149]), (3340, [Entry 1 False, SHIFT 5320]),
     (3342, [Entry 1 False, SHIFT 5355]), (3344, [Entry 1 False, SHIFT 5370]),
     (3346, [Entry 1 False, SHIFT 4168]), (3348, [Entry 1 False, SHIFT 4171]),
     (3350, [Entry 1 False, SHIFT 4175]), (3352, [Entry 1 False, SHIFT 4178]),
     (3354, [Entry 1 False, SHIFT 5377]), (3356, [Entry 1 False, SHIFT 4182]),
     (3358, [Entry 1 False, SHIFT 4189]), (3360, [Entry 1 False, SHIFT 4195]),
     (3362, [Entry 1 False, SHIFT 4199]), (3364, [Entry 1 False, SHIFT 4202])]"

lemma ts_parse_actions_11_tiled: "tiled_from 3066 ts_parse_actions_11 \<and> after_runs 3066 ts_parse_actions_11 = 3366"
  unfolding ts_parse_actions_11_def by (simp cong: runs_weak)

lemma ts_parse_actions_11_ok: "list_all (\<lambda>(i, es). group_ok es) ts_parse_actions_11"
  unfolding ts_parse_actions_11_def
  by (simp add: group_ok_simps entry_action_ok_simps del: One_nat_def group_ok.simps cong: list_all_weak)

lemma row_actions_11_start: "map fst ts_parse_actions_11 = row_actions_11"
  by (simp add: row_actions_11_def ts_parse_actions_11_def)

text \<open>Lines 482371 to 482520.\<close>

definition ts_parse_actions_12 :: "(nat \<times> TSParseActionEntry list) list" where
  "ts_parse_actions_12 =
    [(3366, [Entry 1 False, SHIFT 5437]), (3368, [Entry 1 False, SHIFT 4206]),
     (3370, [Entry 1 False, SHIFT 4210]), (3372, [Entry 1 False, SHIFT 4214]),
     (3374, [Entry 1 False, SHIFT 4221]), (3376, [Entry 1 False, SHIFT 4231]),
     (3378, [Entry 1 False, SHIFT 4235]), (3380, [Entry 1 False, SHIFT 4254]),
     (3382, [Entry 1 False, SHIFT 4257]), (3384, [Entry 1 False, SHIFT 4261]),
     (3386, [Entry 1 False, SHIFT 4264]), (3388, [Entry 1 False, SHIFT 4268]),
     (3390, [Entry 1 False, SHIFT 4275]), (3392, [Entry 1 False, SHIFT 4279]),
     (3394, [Entry 1 False, SHIFT 4282]), (3396, [Entry 1 False, SHIFT 4286]),
     (3398, [Entry 1 False, SHIFT 4289]), (3400, [Entry 1 False, SHIFT 4293]),
     (3402, [Entry 1 False, SHIFT 4300]), (3404, [Entry 1 False, SHIFT 4319]),
     (3406, [Entry 1 False, SHIFT 4322]), (3408, [Entry 1 False, SHIFT 4326]),
     (3410, [Entry 1 False, SHIFT 4335]), (3412, [Entry 1 False, SHIFT 4339]),
     (3414, [Entry 1 False, SHIFT 4346]), (3416, [Entry 1 False, SHIFT 4356]),
     (3418, [Entry 1 False, SHIFT 4361]), (3420, [Entry 1 False, SHIFT 4365]),
     (3422, [Entry 1 False, SHIFT 4372]), (3424, [Entry 1 False, SHIFT 4382]),
     (3426, [Entry 1 False, SHIFT 4386]), (3428, [Entry 1 False, SHIFT 4390]),
     (3430, [Entry 1 False, SHIFT 4393]), (3432, [Entry 1 False, SHIFT 4397]),
     (3434, [Entry 1 False, SHIFT 6654]), (3436, [Entry 1 False, SHIFT 4421]),
     (3438, [Entry 1 False, SHIFT 4425]), (3440, [Entry 1 False, SHIFT 4428]),
     (3442, [Entry 1 False, SHIFT 6658]), (3444, [Entry 1 False, SHIFT 4432]),
     (3446, [Entry 1 False, SHIFT 4439]), (3448, [Entry 1 False, SHIFT 4446]),
     (3450, [Entry 1 False, SHIFT 4451]), (3452, [Entry 1 False, SHIFT 4455]),
     (3454, [Entry 1 False, SHIFT 4462]), (3456, [Entry 1 False, SHIFT 6680]),
     (3458, [Entry 1 False, SHIFT 6685]), (3460, [Entry 1 False, SHIFT 4472]),
     (3462, [Entry 1 False, SHIFT 4476]), (3464, [Entry 1 False, SHIFT 4480]),
     (3466, [Entry 1 False, SHIFT 4483]), (3468, [Entry 1 False, SHIFT 6688]),
     (3470, [Entry 1 False, SHIFT 4487]), (3472, [Entry 1 False, SHIFT 4492]),
     (3474, [Entry 1 False, SHIFT 4496]), (3476, [Entry 1 False, SHIFT 4499]),
     (3478, [Entry 1 False, SHIFT 4503]), (3480, [Entry 1 False, SHIFT 4507]),
     (3482, [Entry 1 False, SHIFT 6701]), (3484, [Entry 1 False, SHIFT 4511]),
     (3486, [Entry 1 False, SHIFT 6705]), (3488, [Entry 1 False, SHIFT 4518]),
     (3490, [Entry 1 False, SHIFT 6709]), (3492, [Entry 1 False, SHIFT 4528]),
     (3494, [Entry 1 False, SHIFT 4532]), (3496, [Entry 1 False, SHIFT 6716]),
     (3498, [Entry 1 False, SHIFT 4551]), (3500, [Entry 1 False, SHIFT 4554]),
     (3502, [Entry 1 False, SHIFT 6726]), (3504, [Entry 1 False, SHIFT 4558]),
     (3506, [Entry 1 False, SHIFT 4561]), (3508, [Entry 1 False, SHIFT 4565]),
     (3510, [Entry 1 False, SHIFT 6736]), (3512, [Entry 1 False, SHIFT 4572]),
     (3514, [Entry 1 False, SHIFT 4576]), (3516, [Entry 1 False, SHIFT 4579]),
     (3518, [Entry 1 False, SHIFT 6740]), (3520, [Entry 1 False, SHIFT 4583]),
     (3522, [Entry 1 False, SHIFT 4586]), (3524, [Entry 1 False, SHIFT 4590]),
     (3526, [Entry 1 False, SHIFT 4597]), (3528, [Entry 1 False, SHIFT 4603]),
     (3530, [Entry 1 False, SHIFT 4609]), (3532, [Entry 1 False, SHIFT 4613]),
     (3534, [Entry 1 False, SHIFT 4616]), (3536, [Entry 1 False, SHIFT 4620]),
     (3538, [Entry 1 False, SHIFT 4624]), (3540, [Entry 1 False, SHIFT 4627]),
     (3542, [Entry 1 False, SHIFT 4631]), (3544, [Entry 1 False, SHIFT 4634]),
     (3546, [Entry 1 False, SHIFT 4638]), (3548, [Entry 1 False, SHIFT 6762]),
     (3550, [Entry 1 False, SHIFT 4645]), (3552, [Entry 1 False, SHIFT 4651]),
     (3554, [Entry 1 False, SHIFT 4657]), (3556, [Entry 1 False, SHIFT 4661]),
     (3558, [Entry 1 False, SHIFT 4664]), (3560, [Entry 1 False, SHIFT 4668]),
     (3562, [Entry 1 False, SHIFT 4671]), (3564, [Entry 1 False, SHIFT 6855]),
     (3566, [Entry 1 False, SHIFT 4675]), (3568, [Entry 1 False, SHIFT 6866]),
     (3570, [Entry 1 False, SHIFT 4682]), (3572, [Entry 1 False, SHIFT 4687]),
     (3574, [Entry 1 False, SHIFT 4691]), (3576, [Entry 1 False, SHIFT 4698]),
     (3578, [Entry 1 False, SHIFT 4707]), (3580, [Entry 1 False, SHIFT 4711]),
     (3582, [Entry 1 False, SHIFT 4715]), (3584, [Entry 1 False, SHIFT 4718]),
     (3586, [Entry 1 False, SHIFT 4722]), (3588, [Entry 1 False, SHIFT 4727]),
     (3590, [Entry 1 False, SHIFT 4731]), (3592, [Entry 1 False, SHIFT 4734]),
     (3594, [Entry 1 False, SHIFT 6797]), (3596, [Entry 1 False, SHIFT 4738]),
     (3598, [Entry 1 False, SHIFT 6800]), (3600, [Entry 1 False, SHIFT 4883]),
     (3602, [Entry 1 False, SHIFT 4887]), (3604, [Entry 1 False, SHIFT 4890]),
     (3606, [Entry 1 False, SHIFT 4894]), (3608, [Entry 1 False, SHIFT 4898]),
     (3610, [Entry 1 False, SHIFT 6804]), (3612, [Entry 1 False, SHIFT 4902]),
     (3614, [Entry 1 False, SHIFT 6954]), (3616, [Entry 1 False, SHIFT 6813]),
     (3618, [Entry 1 False, SHIFT 4909]), (3620, [Entry 1 False, SHIFT 6965]),
     (3622, [Entry 1 False, SHIFT 6817]), (3624, [Entry 1 False, SHIFT 6977]),
     (3626, [Entry 1 False, SHIFT 4919]), (3628, [Entry 1 False, SHIFT 4923]),
     (3630, [Entry 1 False, SHIFT 6824]), (3632, [Entry 1 False, SHIFT 6997]),
     (3634, [Entry 1 False, SHIFT 7003]), (3636, [Entry 1 False, SHIFT 4942]),
     (3638, [Entry 1 False, SHIFT 4945]), (3640, [Entry 1 False, SHIFT 4949]),
     (3642, [Entry 1 False, SHIFT 4952]), (3644, [Entry 1 False, SHIFT 6834]),
     (3646, [Entry 1 False, SHIFT 4956]), (3648, [Entry 1 False, SHIFT 6839]),
     (3650, [Entry 1 False, SHIFT 4963]), (3652, [Entry 1 False, SHIFT 4967]),
     (3654, [Entry 1 False, SHIFT 4970]), (3656, [Entry 1 False, SHIFT 4974]),
     (3658, [Entry 1 False, SHIFT 4977]), (3660, [Entry 1 False, SHIFT 7017]),
     (3662, [Entry 1 False, SHIFT 4981]), (3664, [Entry 1 False, SHIFT 4988])]"

lemma ts_parse_actions_12_tiled: "tiled_from 3366 ts_parse_actions_12 \<and> after_runs 3366 ts_parse_actions_12 = 3666"
  unfolding ts_parse_actions_12_def by (simp cong: runs_weak)

lemma ts_parse_actions_12_ok: "list_all (\<lambda>(i, es). group_ok es) ts_parse_actions_12"
  unfolding ts_parse_actions_12_def
  by (simp add: group_ok_simps entry_action_ok_simps del: One_nat_def group_ok.simps cong: list_all_weak)

lemma row_actions_12_start: "take 9 (map fst ts_parse_actions_12) = row_actions_12"
  by (simp add: row_actions_12_def ts_parse_actions_12_def)

text \<open>Lines 482521 to 482670.\<close>

definition ts_parse_actions_13 :: "(nat \<times> TSParseActionEntry list) list" where
  "ts_parse_actions_13 =
    [(3666, [Entry 1 False, SHIFT 7035]), (3668, [Entry 1 False, SHIFT 5007]),
     (3670, [Entry 1 False, SHIFT 5010]), (3672, [Entry 1 False, SHIFT 5014]),
     (3674, [Entry 1 False, SHIFT 5023]), (3676, [Entry 1 False, SHIFT 5027]),
     (3678, [Entry 1 False, SHIFT 5034]), (3680, [Entry 1 False, SHIFT 5044]),
     (3682, [Entry 1 False, SHIFT 5049]), (3684, [Entry 1 False, SHIFT 5053]),
     (3686, [Entry 1 False, SHIFT 7060]), (3688, [Entry 1 False, SHIFT 5060]),
     (3690, [Entry 1 False, SHIFT 7081]), (3692, [Entry 1 False, SHIFT 5070]),
     (3694, [Entry 1 False, SHIFT 5074]), (3696, [Entry 1 False, SHIFT 5078]),
     (3698, [Entry 1 False, SHIFT 5081]), (3700, [Entry 1 False, SHIFT 5085]),
     (3702, [Entry 1 False, SHIFT 5091]), (3704, [Entry 1 False, SHIFT 5095]),
     (3706, [Entry 1 False, SHIFT 5098]), (3708, [Entry 1 False, SHIFT 5102]),
     (3710, [Entry 1 False, SHIFT 5105]), (3712, [Entry 1 False, SHIFT 5109]),
     (3714, [Entry 1 False, SHIFT 5116]), (3716, [Entry 1 False, SHIFT 5121]),
     (3718, [Entry 1 False, SHIFT 5125]), (3720, [Entry 1 False, SHIFT 5132]),
     (3722, [Entry 1 False, SHIFT 7085]), (3724, [Entry 1 False, SHIFT 5142]),
     (3726, [Entry 1 False, SHIFT 5146]), (3728, [Entry 1 False, SHIFT 5150]),
     (3730, [Entry 1 False, SHIFT 5153]), (3732, [Entry 1 False, SHIFT 5157]),
     (3734, [Entry 1 False, SHIFT 5162]), (3736, [Entry 1 False, SHIFT 5166]),
     (3738, [Entry 1 False, SHIFT 5169]), (3740, [Entry 1 False, SHIFT 5173]),
     (3742, [Entry 1 False, SHIFT 5177]), (3744, [Entry 1 False, SHIFT 5181]),
     (3746, [Entry 1 False, SHIFT 5188]), (3748, [Entry 1 False, SHIFT 5198]),
     (3750, [Entry 1 False, SHIFT 5202]), (3752, [Entry 1 False, SHIFT 5221]),
     (3754, [Entry 1 False, SHIFT 5224]), (3756, [Entry 1 False, SHIFT 5228]),
     (3758, [Entry 1 False, SHIFT 5231]), (3760, [Entry 1 False, SHIFT 5235]),
     (3762, [Entry 1 False, SHIFT 5242]), (3764, [Entry 1 False, SHIFT 5246]),
     (3766, [Entry 1 False, SHIFT 5249]), (3768, [Entry 1 False, SHIFT 7130]),
     (3770, [Entry 1 False, SHIFT 5253]), (3772, [Entry 1 False, SHIFT 5256]),
     (3774, [Entry 1 False, SHIFT 5260]), (3776, [Entry 1 False, SHIFT 6959]),
     (3778, [Entry 1 False, SHIFT 5267]), (3780, [Entry 1 False, SHIFT 5273]),
     (3782, [Entry 1 False, SHIFT 6962]), (3784, [Entry 1 False, SHIFT 5285]),
     (3786, [Entry 1 False, SHIFT 5289]), (3788, [Entry 1 False, SHIFT 5292]),
     (3790, [Entry 1 False, SHIFT 5296]), (3792, [Entry 1 False, SHIFT 5300]),
     (3794, [Entry 1 False, SHIFT 5303]), (3796, [Entry 1 False, SHIFT 6966]),
     (3798, [Entry 1 False, SHIFT 5307]), (3800, [Entry 1 False, SHIFT 5310]),
     (3802, [Entry 1 False, SHIFT 6969]), (3804, [Entry 1 False, SHIFT 5314]),
     (3806, [Entry 1 False, SHIFT 6973]), (3808, [Entry 1 False, SHIFT 5321]),
     (3810, [Entry 1 False, SHIFT 5327]), (3812, [Entry 1 False, SHIFT 5333]),
     (3814, [Entry 1 False, SHIFT 5337]), (3816, [Entry 1 False, SHIFT 5340]),
     (3818, [Entry 1 False, SHIFT 5344]), (3820, [Entry 1 False, SHIFT 5347]),
     (3822, [Entry 1 False, SHIFT 5351]), (3824, [Entry 1 False, SHIFT 6983]),
     (3826, [Entry 1 False, SHIFT 5358]), (3828, [Entry 1 False, SHIFT 5363]),
     (3830, [Entry 1 False, SHIFT 5367]), (3832, [Entry 1 False, SHIFT 5374]),
     (3834, [Entry 1 False, SHIFT 7010]), (3836, [Entry 1 False, SHIFT 7014]),
     (3838, [Entry 1 False, SHIFT 5384]), (3840, [Entry 1 False, SHIFT 5388]),
     (3842, [Entry 1 False, SHIFT 5392]), (3844, [Entry 1 False, SHIFT 5395]),
     (3846, [Entry 1 False, SHIFT 5399]), (3848, [Entry 1 False, SHIFT 5404]),
     (3850, [Entry 1 False, SHIFT 5408]), (3852, [Entry 1 False, SHIFT 5411]),
     (3854, [Entry 1 False, SHIFT 7018]), (3856, [Entry 1 False, SHIFT 5415]),
     (3858, [Entry 1 False, SHIFT 5422]), (3860, [Entry 1 False, SHIFT 5427]),
     (3862, [Entry 1 False, SHIFT 5431]), (3864, [Entry 1 False, SHIFT 5434]),
     (3866, [Entry 1 False, SHIFT 5438]), (3868, [Entry 1 False, SHIFT 5445]),
     (3870, [Entry 1 False, SHIFT 5449]), (3872, [Entry 1 False, SHIFT 5452]),
     (3874, [Entry 1 False, SHIFT 7028]), (3876, [Entry 1 False, SHIFT 5456]),
     (3878, [Entry 1 False, SHIFT 5460]), (3880, [Entry 1 False, SHIFT 5463]),
     (3882, [Entry 1 False, SHIFT 5467]), (3884, [Entry 1 False, SHIFT 5470]),
     (3886, [Entry 1 False, SHIFT 7032]), (3888, [Entry 1 False, SHIFT 5474]),
     (3890, [Entry 1 False, SHIFT 6893]), (3892, [Entry 1 False, SHIFT 6922]),
     (3894, [Entry 1 False, SHIFT 5481]), (3896, [Entry 1 False, SHIFT 5487]),
     (3898, [Entry 1 False, SHIFT 5493]), (3900, [Entry 1 False, SHIFT 7039]),
     (3902, [Entry 1 False, SHIFT 7095]), (3904, [Entry 1 False, SHIFT 5575]),
     (3906, [Entry 1 False, SHIFT 5579]), (3908, [Entry 1 False, SHIFT 5582]),
     (3910, [Entry 1 False, SHIFT 7049]), (3912, [Entry 1 False, SHIFT 5586]),
     (3914, [Entry 1 False, SHIFT 5589]), (3916, [Entry 1 False, SHIFT 7053]),
     (3918, [Entry 1 False, SHIFT 5593]), (3920, [Entry 1 False, SHIFT 3565]),
     (3922, [Entry 1 False, SHIFT 7057]), (3924, [Entry 1 False, SHIFT 5600]),
     (3926, [Entry 1 False, SHIFT 5605]), (3928, [Entry 1 False, SHIFT 5609]),
     (3930, [Entry 1 False, SHIFT 3577]), (3932, [Entry 1 False, SHIFT 7064]),
     (3934, [Entry 1 False, SHIFT 5616]), (3936, [Entry 1 False, SHIFT 3834]),
     (3938, [Entry 1 False, SHIFT 5626]), (3940, [Entry 1 False, SHIFT 5630]),
     (3942, [Entry 1 False, SHIFT 5634]), (3944, [Entry 1 False, SHIFT 5637]),
     (3946, [Entry 1 False, SHIFT 7078]), (3948, [Entry 1 False, SHIFT 5641]),
     (3950, [Entry 1 False, SHIFT 5646]), (3952, [Entry 1 False, SHIFT 5650]),
     (3954, [Entry 1 False, SHIFT 5653]), (3956, [Entry 1 False, SHIFT 5657]),
     (3958, [Entry 1 False, SHIFT 5661]), (3960, [Entry 1 False, SHIFT 7087]),
     (3962, [Entry 1 False, SHIFT 5665]), (3964, [Entry 1 False, SHIFT 7091])]"

lemma ts_parse_actions_13_tiled: "tiled_from 3666 ts_parse_actions_13 \<and> after_runs 3666 ts_parse_actions_13 = 3966"
  unfolding ts_parse_actions_13_def by (simp cong: runs_weak)

lemma ts_parse_actions_13_ok: "list_all (\<lambda>(i, es). group_ok es) ts_parse_actions_13"
  unfolding ts_parse_actions_13_def
  by (simp add: group_ok_simps entry_action_ok_simps del: One_nat_def group_ok.simps cong: list_all_weak)

text \<open>Lines 482671 to 482820.\<close>

definition ts_parse_actions_14 :: "(nat \<times> TSParseActionEntry list) list" where
  "ts_parse_actions_14 =
    [(3966, [Entry 1 False, SHIFT 5672]), (3968, [Entry 1 False, SHIFT 4401]),
     (3970, [Entry 1 False, SHIFT 5682]), (3972, [Entry 1 False, SHIFT 5686]),
     (3974, [Entry 1 False, SHIFT 5849]), (3976, [Entry 1 False, SHIFT 5705]),
     (3978, [Entry 1 False, SHIFT 5708]), (3980, [Entry 1 False, SHIFT 7113]),
     (3982, [Entry 1 False, SHIFT 5712]), (3984, [Entry 1 False, SHIFT 5715]),
     (3986, [Entry 1 False, SHIFT 7117]), (3988, [Entry 1 False, SHIFT 5719]),
     (3990, [Entry 1 False, SHIFT 5726]), (3992, [Entry 1 False, SHIFT 5730]),
     (3994, [Entry 1 False, SHIFT 5733]), (3996, [Entry 1 False, SHIFT 5737]),
     (3998, [Entry 1 False, SHIFT 5740]), (4000, [Entry 1 False, SHIFT 5744]),
     (4002, [Entry 1 False, SHIFT 7136]), (4004, [Entry 1 False, SHIFT 5751]),
     (4006, [Entry 1 False, SHIFT 5757]), (4008, [Entry 1 False, SHIFT 5763]),
     (4010, [Entry 1 False, SHIFT 5767]), (4012, [Entry 1 False, SHIFT 5770]),
     (4014, [Entry 1 False, SHIFT 7139]), (4016, [Entry 1 False, SHIFT 5774]),
     (4018, [Entry 1 False, SHIFT 5778]), (4020, [Entry 1 False, SHIFT 5781]),
     (4022, [Entry 1 False, SHIFT 5785]), (4024, [Entry 1 False, SHIFT 5788]),
     (4026, [Entry 1 False, SHIFT 7146]), (4028, [Entry 1 False, SHIFT 5792]),
     (4030, [Entry 1 False, SHIFT 7150]), (4032, [Entry 1 False, SHIFT 5799]),
     (4034, [Entry 1 False, SHIFT 5805]), (4036, [Entry 1 False, SHIFT 5811]),
     (4038, [Entry 1 False, SHIFT 5815]), (4040, [Entry 1 False, SHIFT 5818]),
     (4042, [Entry 1 False, SHIFT 7184]), (4044, [Entry 1 False, SHIFT 5822]),
     (4046, [Entry 1 False, SHIFT 5825]), (4048, [Entry 1 False, SHIFT 5829]),
     (4050, [Entry 1 False, SHIFT 3833]), (4052, [Entry 1 False, SHIFT 5836]),
     (4054, [Entry 1 False, SHIFT 5841]), (4056, [Entry 1 False, SHIFT 4760]),
     (4058, [Entry 1 False, SHIFT 5845]), (4060, [Entry 1 False, SHIFT 4930]),
     (4062, [Entry 1 False, SHIFT 6473]), (4064, [Entry 1 False, SHIFT 5852]),
     (4066, [Entry 1 False, SHIFT 6634]), (4068, [Entry 1 False, SHIFT 6887]),
     (4070, [Entry 1 False, SHIFT 5862]), (4072, [Entry 1 False, SHIFT 5866]),
     (4074, [Entry 1 False, SHIFT 5870]), (4076, [Entry 1 False, SHIFT 5873]),
     (4078, [Entry 1 False, SHIFT 5877]), (4080, [Entry 1 False, SHIFT 5882]),
     (4082, [Entry 1 False, SHIFT 5886]), (4084, [Entry 1 False, SHIFT 5889]),
     (4086, [Entry 1 False, SHIFT 3849]), (4088, [Entry 1 False, SHIFT 5893]),
     (4090, [Entry 1 False, SHIFT 5901]), (4092, [Entry 1 False, SHIFT 5906]),
     (4094, [Entry 1 False, SHIFT 5910]), (4096, [Entry 1 False, SHIFT 5913]),
     (4098, [Entry 1 False, SHIFT 5917]), (4100, [Entry 1 False, SHIFT 5924]),
     (4102, [Entry 1 False, SHIFT 5928]), (4104, [Entry 1 False, SHIFT 5931]),
     (4106, [Entry 1 False, SHIFT 5935]), (4108, [Entry 1 False, SHIFT 5939]),
     (4110, [Entry 1 False, SHIFT 5942]), (4112, [Entry 1 False, SHIFT 3989]),
     (4114, [Entry 1 False, SHIFT 5946]), (4116, [Entry 1 False, SHIFT 5949]),
     (4118, [Entry 1 False, SHIFT 5953]), (4120, [Entry 1 False, SHIFT 5960]),
     (4122, [Entry 1 False, SHIFT 5966]), (4124, [Entry 1 False, SHIFT 5972]),
     (4126, [Entry 1 False, SHIFT 5979]), (4128, [Entry 1 False, SHIFT 5985]),
     (4130, [Entry 1 False, SHIFT 5990]), (4132, [Entry 1 False, SHIFT 5994]),
     (4134, [Entry 1 False, SHIFT 5997]), (4136, [Entry 1 False, SHIFT 4205]),
     (4138, [Entry 1 False, SHIFT 6001]), (4140, [Entry 1 False, SHIFT 6040]),
     (4142, [Entry 1 False, SHIFT 6044]), (4144, [Entry 1 False, SHIFT 6047]),
     (4146, [Entry 1 False, SHIFT 4406]), (4148, [Entry 1 False, SHIFT 6051]),
     (4150, [Entry 1 False, SHIFT 6055]), (4152, [Entry 1 False, SHIFT 6058]),
     (4154, [Entry 1 False, SHIFT 6062]), (4156, [Entry 1 False, SHIFT 6065]),
     (4158, [Entry 1 False, SHIFT 6069]), (4160, [Entry 1 False, SHIFT 6076]),
     (4162, [Entry 1 False, SHIFT 6082]), (4164, [Entry 1 False, SHIFT 6088]),
     (4166, [Entry 1 False, SHIFT 6092]), (4168, [Entry 1 False, SHIFT 6095]),
     (4170, [Entry 1 False, SHIFT 6099]), (4172, [Entry 1 False, SHIFT 6102]),
     (4174, [Entry 1 False, SHIFT 5276]), (4176, [Entry 1 False, SHIFT 3595]),
     (4178, [Entry 1 False, SHIFT 5640]), (4180, [Entry 1 False, SHIFT 6113]),
     (4182, [Entry 1 False, SHIFT 6118]), (4184, [Entry 1 False, SHIFT 5848]),
     (4186, [Entry 1 False, SHIFT 6122]), (4188, [Entry 1 False, SHIFT 6126]),
     (4190, [Entry 1 False, SHIFT 6129]), (4192, [Entry 1 False, SHIFT 6474]),
     (4194, [Entry 1 False, SHIFT 6139]), (4196, [Entry 1 False, SHIFT 6143]),
     (4198, [Entry 1 False, SHIFT 6147]), (4200, [Entry 1 False, SHIFT 6150]),
     (4202, [Entry 1 False, SHIFT 6531]), (4204, [Entry 1 False, SHIFT 6154]),
     (4206, [Entry 1 False, SHIFT 6159]), (4208, [Entry 1 False, SHIFT 6163]),
     (4210, [Entry 1 False, SHIFT 6166]), (4212, [Entry 1 False, SHIFT 6565]),
     (4214, [Entry 1 False, SHIFT 6170]), (4216, [Entry 1 False, SHIFT 6177]),
     (4218, [Entry 1 False, SHIFT 6182]), (4220, [Entry 1 False, SHIFT 6186]),
     (4222, [Entry 1 False, SHIFT 6189]), (4224, [Entry 1 False, SHIFT 6573]),
     (4226, [Entry 1 False, SHIFT 6193]), (4228, [Entry 1 False, SHIFT 6200]),
     (4230, [Entry 1 False, SHIFT 6204]), (4232, [Entry 1 False, SHIFT 6207]),
     (4234, [Entry 1 False, SHIFT 6211]), (4236, [Entry 1 False, SHIFT 6215]),
     (4238, [Entry 1 False, SHIFT 6218]), (4240, [Entry 1 False, SHIFT 6616]),
     (4242, [Entry 1 False, SHIFT 6222]), (4244, [Entry 1 False, SHIFT 6225]),
     (4246, [Entry 1 False, SHIFT 6620]), (4248, [Entry 1 False, SHIFT 6229]),
     (4250, [Entry 1 False, SHIFT 6636]), (4252, [Entry 1 False, SHIFT 6236]),
     (4254, [Entry 1 False, SHIFT 6242]), (4256, [Entry 1 False, SHIFT 6248]),
     (4258, [Entry 1 False, SHIFT 6255]), (4260, [Entry 1 False, SHIFT 6261]),
     (4262, [Entry 1 False, SHIFT 6266]), (4264, [Entry 1 False, SHIFT 6270])]"

lemma ts_parse_actions_14_tiled: "tiled_from 3966 ts_parse_actions_14 \<and> after_runs 3966 ts_parse_actions_14 = 4266"
  unfolding ts_parse_actions_14_def by (simp cong: runs_weak)

lemma ts_parse_actions_14_ok: "list_all (\<lambda>(i, es). group_ok es) ts_parse_actions_14"
  unfolding ts_parse_actions_14_def
  by (simp add: group_ok_simps entry_action_ok_simps del: One_nat_def group_ok.simps cong: list_all_weak)

text \<open>Lines 482821 to 482970.\<close>

definition ts_parse_actions_15 :: "(nat \<times> TSParseActionEntry list) list" where
  "ts_parse_actions_15 =
    [(4266, [Entry 1 False, SHIFT 6273]), (4268, [Entry 1 False, SHIFT 6277]),
     (4270, [Entry 1 False, SHIFT 6287]), (4272, [Entry 1 False, SHIFT 6301]),
     (4274, [Entry 1 False, SHIFT 6306]), (4276, [Entry 1 False, SHIFT 6310]),
     (4278, [Entry 1 False, SHIFT 6313]), (4280, [Entry 1 False, SHIFT 6317]),
     (4282, [Entry 1 False, SHIFT 6324]), (4284, [Entry 1 False, SHIFT 6328]),
     (4286, [Entry 1 False, SHIFT 6331]), (4288, [Entry 1 False, SHIFT 6793]),
     (4290, [Entry 1 False, SHIFT 6335]), (4292, [Entry 1 False, SHIFT 6339]),
     (4294, [Entry 1 False, SHIFT 6342]), (4296, [Entry 1 False, SHIFT 6346]),
     (4298, [Entry 1 False, SHIFT 6349]), (4300, [Entry 1 False, SHIFT 6353]),
     (4302, [Entry 1 False, SHIFT 6360]), (4304, [Entry 1 False, SHIFT 6366]),
     (4306, [Entry 1 False, SHIFT 6372]), (4308, [Entry 1 False, SHIFT 6379]),
     (4310, [Entry 1 False, SHIFT 6385]), (4312, [Entry 1 False, SHIFT 6390]),
     (4314, [Entry 1 False, SHIFT 6394]), (4316, [Entry 1 False, SHIFT 6397]),
     (4318, [Entry 1 False, SHIFT 7156]), (4320, [Entry 1 False, SHIFT 6401]),
     (4322, [Entry 1 False, SHIFT 6411]), (4324, [Entry 1 False, SHIFT 6420]),
     (4326, [Entry 1 False, SHIFT 6426]), (4328, [Entry 1 False, SHIFT 6431]),
     (4330, [Entry 1 False, SHIFT 6435]), (4332, [Entry 1 False, SHIFT 6438]),
     (4334, [Entry 1 False, SHIFT 6935]), (4336, [Entry 1 False, SHIFT 6442]),
     (4338, [Entry 1 False, SHIFT 6452]), (4340, [Entry 1 False, SHIFT 6461]),
     (4342, [Entry 1 False, SHIFT 6950]), (4344, [Entry 1 False, SHIFT 7069]),
     (4346, [Entry 1 False, SHIFT 7172]), (4348, [Entry 1 False, SHIFT 3424]),
     (4350, [Entry 1 False, SHIFT 3462]), (4352, [Entry 1 False, SHIFT 3461]),
     (4354, [Entry 1 False, SHIFT 3478]), (4356, [Entry 1 False, SHIFT 3547]),
     (4358, [Entry 1 False, SHIFT 7188]), (4360, [Entry 1 False, SHIFT 3486]),
     (4362, [Entry 1 False, SHIFT 3585]), (4364, [Entry 1 False, SHIFT 3603]),
     (4366, [Entry 1 False, SHIFT 3613]), (4368, [Entry 1 False, SHIFT 3822]),
     (4370, [Entry 1 False, SHIFT 3855]), (4372, [Entry 1 False, SHIFT 3878]),
     (4374, [Entry 1 False, SHIFT 3885]), (4376, [Entry 1 False, SHIFT 3901]),
     (4378, [Entry 1 False, SHIFT 3911]), (4380, [Entry 1 False, SHIFT 6515]),
     (4382, [Entry 1 False, SHIFT 6522]), (4384, [Entry 1 False, SHIFT 6536]),
     (4386, [Entry 1 False, SHIFT 3647]), (4388, [Entry 1 False, SHIFT 6547]),
     (4390, [Entry 1 False, SHIFT 6558]), (4392, [Entry 1 False, SHIFT 3661]),
     (4394, [Entry 1 False, SHIFT 6562]), (4396, [Entry 1 False, SHIFT 3731]),
     (4398, [Entry 1 False, SHIFT 3739]), (4400, [Entry 1 False, SHIFT 6605]),
     (4402, [Entry 1 False, SHIFT 3743]), (4404, [Entry 1 False, SHIFT 3757]),
     (4406, [Entry 1 False, SHIFT 3760]), (4408, [Entry 1 False, SHIFT 3765]),
     (4410, [Entry 1 False, SHIFT 4038]), (4412, [Entry 1 False, SHIFT 6644]),
     (4414, [Entry 1 False, SHIFT 6650]), (4416, [Entry 1 False, SHIFT 6661]),
     (4418, [Entry 1 True, SHIFT 2028]), (4420, [Entry 1 False, SHIFT 6677]),
     (4422, [Entry 1 False, SHIFT 6690]), (4424, [Entry 1 False, SHIFT 4042]),
     (4426, [Entry 1 False, SHIFT 6697]), (4428, [Entry 1 False, SHIFT 4054]),
     (4430, [Entry 1 False, SHIFT 6725]),
     (4432, [Entry 2 True, REDUCE aux_sym_deref_expression_repeat1 2 0 0, SHIFT_REPEAT 2005]),
     (4435, [Entry 1 False, SHIFT 6734]), (4437, [Entry 1 False, SHIFT 6747]),
     (4439, [Entry 1 False, SHIFT 6753]), (4441, [Entry 1 False, SHIFT 4060]),
     (4443, [Entry 1 False, SHIFT 6761]), (4445, [Entry 1 False, SHIFT 6783]),
     (4447, [Entry 1 False, SHIFT 4109]), (4449, [Entry 1 False, SHIFT 6788]),
     (4451, [Entry 1 False, SHIFT 6811]), (4453, [Entry 1 True, SHIFT 31]),
     (4455, [Entry 2 False, REDUCE sym_begin_path_expression 1 0 0, SHIFT 7697]),
     (4458, [Entry 1 True, SHIFT 2005]), (4460, [Entry 1 False, SHIFT 4074]),
     (4462, [Entry 1 False, SHIFT 6860]),
     (4464, [Entry 2 False, REDUCE sym_any_invocation_kind 2 0 60, SHIFT 7697]),
     (4467, [Entry 1 False, SHIFT 6863]), (4469, [Entry 1 False, SHIFT 6869]),
     (4471, [Entry 2 False, REDUCE sym_any_invocation_kind 3 0 146, SHIFT 7697]),
     (4474, [Entry 1 False, SHIFT 6879]), (4476, [Entry 1 False, SHIFT 6883]),
     (4478, [Entry 1 False, SHIFT 6890]), (4480, [Entry 1 False, SHIFT 6903]),
     (4482, [Entry 1 False, SHIFT 6907]), (4484, [Entry 1 False, SHIFT 6911]),
     (4486, [Entry 1 False, SHIFT 6919]), (4488, [Entry 1 False, SHIFT 6929]),
     (4490, [Entry 1 False, SHIFT 6939]), (4492, [Entry 1 False, SHIFT 6943]),
     (4494, [Entry 1 False, SHIFT 7026]), (4496, [Entry 1 False, SHIFT 7044]),
     (4498, [Entry 1 False, SHIFT 7109]), (4500, [Entry 1 False, SHIFT 7123]),
     (4502, [Entry 1 False, SHIFT 7134]), (4504, [Entry 1 False, SHIFT 7144]),
     (4506, [Entry 1 False, SHIFT 7151]), (4508, [Entry 1 False, SHIFT 7159]),
     (4510, [Entry 1 False, SHIFT 4144]), (4512, [Entry 1 False, SHIFT 4159]),
     (4514, [Entry 1 False, SHIFT 4267]), (4516, [Entry 1 False, SHIFT 4174]),
     (4518, [Entry 1 False, SHIFT 3429]), (4520, [Entry 1 False, SHIFT 3433]),
     (4522, [Entry 1 False, SHIFT 3436]), (4524, [Entry 1 False, SHIFT 4223]),
     (4526, [Entry 1 False, SHIFT 3440]), (4528, [Entry 1 False, SHIFT 3444]),
     (4530, [Entry 1 False, SHIFT 3448]), (4532, [Entry 1 False, SHIFT 4245]),
     (4534, [Entry 1 False, SHIFT 3455]), (4536, [Entry 1 False, SHIFT 4249]),
     (4538, [Entry 1 False, SHIFT 3465]), (4540, [Entry 1 False, SHIFT 3469]),
     (4542, [Entry 1 False, SHIFT 3488]), (4544, [Entry 1 False, SHIFT 3491]),
     (4546, [Entry 1 False, SHIFT 3495]), (4548, [Entry 1 False, SHIFT 3498]),
     (4550, [Entry 1 False, SHIFT 4317]), (4552, [Entry 1 False, SHIFT 3502]),
     (4554, [Entry 1 False, SHIFT 3509]), (4556, [Entry 1 False, SHIFT 3513]),
     (4558, [Entry 1 False, SHIFT 3516]), (4560, [Entry 1 False, SHIFT 3520]),
     (4562, [Entry 1 False, SHIFT 3523]), (4564, [Entry 1 False, SHIFT 3527]),
     (4566, [Entry 1 False, SHIFT 3534]), (4568, [Entry 1 False, SHIFT 5280])]"

lemma ts_parse_actions_15_tiled: "tiled_from 4266 ts_parse_actions_15 \<and> after_runs 4266 ts_parse_actions_15 = 4570"
  unfolding ts_parse_actions_15_def by (simp cong: runs_weak)

lemma ts_parse_actions_15_ok: "list_all (\<lambda>(i, es). group_ok es) ts_parse_actions_15"
  unfolding ts_parse_actions_15_def
  by (simp add: group_ok_simps entry_action_ok_simps del: One_nat_def group_ok.simps cong: list_all_weak)

text \<open>Lines 482971 to 483120.\<close>

definition ts_parse_actions_16 :: "(nat \<times> TSParseActionEntry list) list" where
  "ts_parse_actions_16 =
    [(4570, [Entry 1 False, SHIFT 5381]), (4572, [Entry 1 False, SHIFT 3553]),
     (4574, [Entry 1 False, SHIFT 3556]), (4576, [Entry 1 False, SHIFT 3560]),
     (4578, [Entry 1 False, SHIFT 4408]), (4580, [Entry 1 False, SHIFT 3569]),
     (4582, [Entry 1 False, SHIFT 4411]), (4584, [Entry 1 False, SHIFT 3573]),
     (4586, [Entry 1 False, SHIFT 5701]), (4588, [Entry 1 False, SHIFT 4415]),
     (4590, [Entry 1 False, SHIFT 3580]), (4592, [Entry 1 False, SHIFT 4458]),
     (4594, [Entry 1 False, SHIFT 3590]), (4596, [Entry 1 False, SHIFT 6106]),
     (4598, [Entry 1 True, SHIFT 2046]), (4600, [Entry 1 True, SHIFT 33]),
     (4602, [Entry 2 False, REDUCE sym_begin_path_expression 1 0 0, SHIFT 7676]),
     (4605, [Entry 1 True, SHIFT 2022]),
     (4607, [Entry 2 False, REDUCE sym_any_invocation_kind 2 0 60, SHIFT 7676]),
     (4610, [Entry 2 True, REDUCE aux_sym_deref_expression_repeat1 2 0 0, SHIFT_REPEAT 2022]),
     (4613, [Entry 2 False, REDUCE sym_any_invocation_kind 3 0 146, SHIFT 7676]),
     (4616, [Entry 2 False, REDUCE sym_any_invocation 1 0 8, SHIFT 7452]),
     (4619, [Entry 1 True, SHIFT 2041]),
     (4621, [Entry 2 False, REDUCE sym_any_invocation 1 0 8, SHIFT 7455]),
     (4624, [Entry 1 True, SHIFT 2048]),
     (4626, [Entry 2 False, REDUCE aux_sym_stmt_list_repeat1 2 0 0, SHIFT_REPEAT 2393]),
     (4629, [Entry 2 False, REDUCE aux_sym_stmt_list_repeat1 2 0 0, SHIFT_REPEAT 2643]),
     (4632, [Entry 2 False, REDUCE aux_sym_stmt_list_repeat1 2 0 0, SHIFT_REPEAT 2555]),
     (4635, [Entry 2 False, REDUCE aux_sym_stmt_list_repeat1 2 0 0, SHIFT_REPEAT 7634]),
     (4638, [Entry 2 True, REDUCE aux_sym_stmt_list_repeat1 2 0 0, SHIFT_REPEAT 2021]),
     (4641, [Entry 2 False, REDUCE aux_sym_stmt_list_repeat1 2 0 0, SHIFT_REPEAT 7499]),
     (4644, [Entry 2 False, REDUCE aux_sym_stmt_list_repeat1 2 0 0, SHIFT_REPEAT 3150]),
     (4647, [Entry 2 False, REDUCE aux_sym_stmt_list_repeat1 2 0 0, SHIFT_REPEAT 44]),
     (4650, [Entry 2 False, REDUCE aux_sym_stmt_list_repeat1 2 0 0, SHIFT_REPEAT 89]),
     (4653, [Entry 2 False, REDUCE aux_sym_stmt_list_repeat1 2 0 0, SHIFT_REPEAT 3369]),
     (4656, [Entry 2 False, REDUCE aux_sym_stmt_list_repeat1 2 0 0, SHIFT_REPEAT 35]),
     (4659, [Entry 2 False, REDUCE aux_sym_stmt_list_repeat1 2 0 0, SHIFT_REPEAT 2313]),
     (4662, [Entry 2 False, REDUCE aux_sym_stmt_list_repeat1 2 0 0, SHIFT_REPEAT 9824]),
     (4665, [Entry 2 False, REDUCE aux_sym_stmt_list_repeat1 2 0 0, SHIFT_REPEAT 2302]),
     (4668, [Entry 2 False, REDUCE aux_sym_stmt_list_repeat1 2 0 0, SHIFT_REPEAT 3177]),
     (4671, [Entry 1 True, SHIFT 2021]), (4673, [Entry 1 False, REDUCE sym_stmt_list 1 0 0]),
     (4675, [Entry 1 True, SHIFT 75]), (4677, [Entry 1 False, REDUCE sym__stmt 1 0 0]),
     (4679, [Entry 2 True, REDUCE sym__stmt 1 0 0, SHIFT 23]),
     (4682, [Entry 1 True, REDUCE sym__stmt 1 0 0]), (4684, [Entry 1 True, SHIFT 2424]),
     (4686, [Entry 1 True, SHIFT 76]), (4688, [Entry 1 False, SHIFT 79]),
     (4690, [Entry 1 False, SHIFT 76]),
     (4692, [Entry 2 False, REDUCE sym_any_invocation_kind 1 0 0, SHIFT 7450]),
     (4695, [Entry 1 True, REDUCE sym_ERR_assign_func_call 1 0 0]),
     (4697, [Entry 1 False, REDUCE sym_ERR_assign_func_call 1 0 0]),
     (4699, [Entry 2 False, REDUCE sym_any_invocation_kind 1 0 0, SHIFT 7471]),
     (4702, [Entry 1 True, SHIFT 22]), (4704, [Entry 1 True, SHIFT 9766]),
     (4706, [Entry 1 False, SHIFT 10101]), (4708, [Entry 1 False, SHIFT 8002]),
     (4710, [Entry 2 False, REDUCE aux_sym_relative_offset_repeat1 2 0 0, SHIFT_REPEAT 10101]),
     (4713, [Entry 1 False, REDUCE sym_try_stmt 2 0 0]),
     (4715, [Entry 1 True, REDUCE sym_try_stmt 2 0 0]),
     (4717, [Entry 1 False, REDUCE sym_ERR_clause_outside_try 1 (-1) 0]),
     (4719, [Entry 1 True, SHIFT 2333]), (4721, [Entry 1 False, SHIFT 2128]),
     (4723, [Entry 1 False, SHIFT 3300]), (4725, [Entry 1 False, SHIFT 2309]),
     (4727, [Entry 1 False, SHIFT 2331]), (4729, [Entry 1 False, SHIFT 3138]),
     (4731, [Entry 1 False, REDUCE sym_raise_stmt 4 0 143]),
     (4733, [Entry 1 True, REDUCE sym_raise_stmt 4 0 143]),
     (4735, [Entry 1 False, REDUCE sym_try_stmt 4 0 144]),
     (4737, [Entry 1 True, REDUCE sym_try_stmt 4 0 144]),
     (4739, [Entry 1 False, REDUCE sym_method_decl 4 0 38]),
     (4741, [Entry 1 True, REDUCE sym_method_decl 4 0 38]),
     (4743, [Entry 1 False, REDUCE sym_wasm_pragma 5 0 242]),
     (4745, [Entry 1 True, REDUCE sym_wasm_pragma 5 0 242]),
     (4747, [Entry 1 False, REDUCE sym_wasm_pragma 5 0 243]),
     (4749, [Entry 1 True, REDUCE sym_wasm_pragma 5 0 243]),
     (4751, [Entry 1 False, REDUCE sym_wasm_pragma 5 0 244]),
     (4753, [Entry 1 True, REDUCE sym_wasm_pragma 5 0 244]),
     (4755, [Entry 1 False, REDUCE sym_ERR_end_try_spelling 1 0 0]),
     (4757, [Entry 1 True, REDUCE sym_ERR_end_try_spelling 1 0 0]),
     (4759, [Entry 1 False, REDUCE sym_repeat_stmt 4 0 142]),
     (4761, [Entry 1 True, REDUCE sym_repeat_stmt 4 0 142]),
     (4763, [Entry 1 False, REDUCE sym_method_decl 5 0 249]),
     (4765, [Entry 1 True, REDUCE sym_method_decl 5 0 249]),
     (4767, [Entry 1 False, REDUCE sym_method_decl 5 0 82]),
     (4769, [Entry 1 True, REDUCE sym_method_decl 5 0 82]),
     (4771, [Entry 1 False, REDUCE sym_method_decl 5 0 250]),
     (4773, [Entry 1 True, REDUCE sym_method_decl 5 0 250]),
     (4775, [Entry 1 False, REDUCE sym_method_decl 5 0 251]),
     (4777, [Entry 1 True, REDUCE sym_method_decl 5 0 251]),
     (4779, [Entry 1 False, REDUCE sym_method_decl 5 0 43]),
     (4781, [Entry 1 True, REDUCE sym_method_decl 5 0 43]),
     (4783, [Entry 1 False, REDUCE sym_method_decl 5 0 65]),
     (4785, [Entry 1 True, REDUCE sym_method_decl 5 0 65]),
     (4787, [Entry 1 False, REDUCE sym_method_decl 5 0 252]),
     (4789, [Entry 1 True, REDUCE sym_method_decl 5 0 252]),
     (4791, [Entry 1 False, REDUCE sym_method_decl 5 0 253]),
     (4793, [Entry 1 True, REDUCE sym_method_decl 5 0 253]),
     (4795, [Entry 1 False, REDUCE sym_method_decl 5 0 254]),
     (4797, [Entry 1 True, REDUCE sym_method_decl 5 0 254]),
     (4799, [Entry 1 False, REDUCE sym_method_decl 5 0 255]),
     (4801, [Entry 1 True, REDUCE sym_method_decl 5 0 255]),
     (4803, [Entry 1 False, REDUCE sym_if_stmt 5 0 132]),
     (4805, [Entry 1 True, REDUCE sym_if_stmt 5 0 132]),
     (4807, [Entry 1 False, REDUCE sym_if_stmt 5 0 257]),
     (4809, [Entry 1 True, REDUCE sym_if_stmt 5 0 257]),
     (4811, [Entry 1 False, REDUCE sym_if_stmt 5 0 258]),
     (4813, [Entry 1 True, REDUCE sym_if_stmt 5 0 258]),
     (4815, [Entry 1 False, REDUCE sym_case_stmt 5 0 139]),
     (4817, [Entry 1 True, REDUCE sym_case_stmt 5 0 139]),
     (4819, [Entry 1 False, REDUCE sym_case_stmt 5 0 260]),
     (4821, [Entry 1 True, REDUCE sym_case_stmt 5 0 260]),
     (4823, [Entry 1 False, REDUCE sym_for_stmt 5 0 140]),
     (4825, [Entry 1 True, REDUCE sym_for_stmt 5 0 140]),
     (4827, [Entry 1 False, REDUCE sym_for_stmt 5 0 261]),
     (4829, [Entry 1 True, REDUCE sym_for_stmt 5 0 261]),
     (4831, [Entry 1 False, REDUCE sym_while_stmt 5 0 262]),
     (4833, [Entry 1 True, REDUCE sym_while_stmt 5 0 262]),
     (4835, [Entry 1 False, REDUCE sym_repeat_stmt 5 0 263]),
     (4837, [Entry 1 True, REDUCE sym_repeat_stmt 5 0 263]),
     (4839, [Entry 1 False, REDUCE sym_assign 2 0 21]),
     (4841, [Entry 1 True, REDUCE sym_assign 2 0 21]),
     (4843, [Entry 1 False, REDUCE sym_method_decl 5 0 267]),
     (4845, [Entry 1 True, REDUCE sym_method_decl 5 0 267]),
     (4847, [Entry 1 False, REDUCE sym_method_decl 5 0 268]),
     (4849, [Entry 1 True, REDUCE sym_method_decl 5 0 268]),
     (4851, [Entry 1 False, REDUCE sym_method_decl 5 0 95]),
     (4853, [Entry 1 True, REDUCE sym_method_decl 5 0 95]),
     (4855, [Entry 1 False, REDUCE sym_method_decl 5 0 97]),
     (4857, [Entry 1 True, REDUCE sym_method_decl 5 0 97]),
     (4859, [Entry 1 False, REDUCE sym_method_decl 5 0 269]),
     (4861, [Entry 1 True, REDUCE sym_method_decl 5 0 269]),
     (4863, [Entry 1 False, REDUCE sym_wasm_pragma 6 0 441]),
     (4865, [Entry 1 True, REDUCE sym_wasm_pragma 6 0 441]),
     (4867, [Entry 1 False, REDUCE sym_wasm_pragma 6 0 442]),
     (4869, [Entry 1 True, REDUCE sym_wasm_pragma 6 0 442]),
     (4871, [Entry 1 False, REDUCE sym_wasm_pragma 6 0 443]),
     (4873, [Entry 1 True, REDUCE sym_wasm_pragma 6 0 443]),
     (4875, [Entry 1 False, REDUCE sym_method_decl 6 0 444]),
     (4877, [Entry 1 True, REDUCE sym_method_decl 6 0 444]),
     (4879, [Entry 1 False, REDUCE sym_method_decl 6 0 445]),
     (4881, [Entry 1 True, REDUCE sym_method_decl 6 0 445]),
     (4883, [Entry 1 False, REDUCE sym_method_decl 6 0 446]),
     (4885, [Entry 1 True, REDUCE sym_method_decl 6 0 446]),
     (4887, [Entry 1 False, REDUCE sym_method_decl 6 0 447]),
     (4889, [Entry 1 True, REDUCE sym_method_decl 6 0 447]),
     (4891, [Entry 1 False, REDUCE sym_method_decl 6 0 448]),
     (4893, [Entry 1 True, REDUCE sym_method_decl 6 0 448])]"

lemma ts_parse_actions_16_tiled: "tiled_from 4570 ts_parse_actions_16 \<and> after_runs 4570 ts_parse_actions_16 = 4895"
  unfolding ts_parse_actions_16_def by (simp cong: runs_weak)

lemma ts_parse_actions_16_ok: "list_all (\<lambda>(i, es). group_ok es) ts_parse_actions_16"
  unfolding ts_parse_actions_16_def
  by (simp add: group_ok_simps entry_action_ok_simps del: One_nat_def group_ok.simps cong: list_all_weak)

text \<open>Lines 483121 to 483270.\<close>

definition ts_parse_actions_17 :: "(nat \<times> TSParseActionEntry list) list" where
  "ts_parse_actions_17 =
    [(4895, [Entry 1 False, REDUCE sym_method_decl 6 0 449]),
     (4897, [Entry 1 True, REDUCE sym_method_decl 6 0 449]),
     (4899, [Entry 1 False, REDUCE sym_method_decl 6 0 106]),
     (4901, [Entry 1 True, REDUCE sym_method_decl 6 0 106]),
     (4903, [Entry 1 False, REDUCE sym_method_decl 6 0 108]),
     (4905, [Entry 1 True, REDUCE sym_method_decl 6 0 108]),
     (4907, [Entry 1 False, REDUCE sym_method_decl 6 0 450]),
     (4909, [Entry 1 True, REDUCE sym_method_decl 6 0 450]),
     (4911, [Entry 1 False, REDUCE sym_method_decl 6 0 451]),
     (4913, [Entry 1 True, REDUCE sym_method_decl 6 0 451]),
     (4915, [Entry 1 False, REDUCE sym_method_decl 6 0 452]),
     (4917, [Entry 1 True, REDUCE sym_method_decl 6 0 452]),
     (4919, [Entry 1 False, REDUCE sym_method_decl 6 0 453]),
     (4921, [Entry 1 True, REDUCE sym_method_decl 6 0 453]),
     (4923, [Entry 1 False, REDUCE sym_method_decl 6 0 454]),
     (4925, [Entry 1 True, REDUCE sym_method_decl 6 0 454]),
     (4927, [Entry 1 False, REDUCE sym_method_decl 6 0 455]),
     (4929, [Entry 1 True, REDUCE sym_method_decl 6 0 455]),
     (4931, [Entry 1 False, REDUCE sym_method_decl 6 0 456]),
     (4933, [Entry 1 True, REDUCE sym_method_decl 6 0 456]),
     (4935, [Entry 1 False, REDUCE sym_if_stmt 6 0 459]),
     (4937, [Entry 1 True, REDUCE sym_if_stmt 6 0 459]),
     (4939, [Entry 1 False, REDUCE sym_if_stmt 6 0 257]),
     (4941, [Entry 1 True, REDUCE sym_if_stmt 6 0 257]),
     (4943, [Entry 1 False, REDUCE sym_if_stmt 6 0 461]),
     (4945, [Entry 1 True, REDUCE sym_if_stmt 6 0 461]),
     (4947, [Entry 1 False, REDUCE sym_if_stmt 6 0 258]),
     (4949, [Entry 1 True, REDUCE sym_if_stmt 6 0 258]),
     (4951, [Entry 1 False, REDUCE sym_case_stmt 6 0 462]),
     (4953, [Entry 1 True, REDUCE sym_case_stmt 6 0 462]),
     (4955, [Entry 1 False, REDUCE sym_case_stmt 6 0 260]),
     (4957, [Entry 1 True, REDUCE sym_case_stmt 6 0 260]),
     (4959, [Entry 1 False, REDUCE sym_for_stmt 6 0 465]),
     (4961, [Entry 1 True, REDUCE sym_for_stmt 6 0 465]),
     (4963, [Entry 1 False, REDUCE sym_method_decl 6 0 468]),
     (4965, [Entry 1 True, REDUCE sym_method_decl 6 0 468]),
     (4967, [Entry 1 False, REDUCE sym_method_decl 6 0 469]),
     (4969, [Entry 1 True, REDUCE sym_method_decl 6 0 469]),
     (4971, [Entry 1 False, REDUCE sym_method_decl 6 0 470]),
     (4973, [Entry 1 True, REDUCE sym_method_decl 6 0 470]),
     (4975, [Entry 1 False, REDUCE sym_method_decl 6 0 471]),
     (4977, [Entry 1 True, REDUCE sym_method_decl 6 0 471]),
     (4979, [Entry 1 False, REDUCE sym_method_decl 6 0 472]),
     (4981, [Entry 1 True, REDUCE sym_method_decl 6 0 472]),
     (4983, [Entry 1 False, REDUCE sym_method_decl 6 0 214]),
     (4985, [Entry 1 True, REDUCE sym_method_decl 6 0 214]),
     (4987, [Entry 1 False, REDUCE sym_method_decl 6 0 217]),
     (4989, [Entry 1 True, REDUCE sym_method_decl 6 0 217]),
     (4991, [Entry 1 False, REDUCE sym_method_decl 6 0 473]),
     (4993, [Entry 1 True, REDUCE sym_method_decl 6 0 473]),
     (4995, [Entry 1 False, REDUCE sym_method_decl 6 0 474]),
     (4997, [Entry 1 True, REDUCE sym_method_decl 6 0 474]),
     (4999, [Entry 1 False, REDUCE sym_method_decl 6 0 475]),
     (5001, [Entry 1 True, REDUCE sym_method_decl 6 0 475]),
     (5003, [Entry 1 False, REDUCE sym_method_decl 6 0 476]),
     (5005, [Entry 1 True, REDUCE sym_method_decl 6 0 476]),
     (5007, [Entry 1 False, REDUCE sym_wasm_pragma 7 0 765]),
     (5009, [Entry 1 True, REDUCE sym_wasm_pragma 7 0 765]),
     (5011, [Entry 1 False, REDUCE sym_method_decl 7 0 767]),
     (5013, [Entry 1 True, REDUCE sym_method_decl 7 0 767]),
     (5015, [Entry 1 False, REDUCE sym_method_decl 7 0 768]),
     (5017, [Entry 1 True, REDUCE sym_method_decl 7 0 768]),
     (5019, [Entry 1 False, REDUCE sym_method_decl 7 0 769]),
     (5021, [Entry 1 True, REDUCE sym_method_decl 7 0 769]),
     (5023, [Entry 1 False, REDUCE sym_method_decl 7 0 770]),
     (5025, [Entry 1 True, REDUCE sym_method_decl 7 0 770]),
     (5027, [Entry 1 False, REDUCE sym_method_decl 7 0 771]),
     (5029, [Entry 1 True, REDUCE sym_method_decl 7 0 771]),
     (5031, [Entry 1 False, REDUCE sym_method_decl 7 0 772]),
     (5033, [Entry 1 True, REDUCE sym_method_decl 7 0 772]),
     (5035, [Entry 1 False, REDUCE sym_method_decl 7 0 241]),
     (5037, [Entry 1 True, REDUCE sym_method_decl 7 0 241]),
     (5039, [Entry 1 False, REDUCE sym_method_decl 7 0 773]),
     (5041, [Entry 1 True, REDUCE sym_method_decl 7 0 773]),
     (5043, [Entry 1 False, REDUCE sym_method_decl 7 0 774]),
     (5045, [Entry 1 True, REDUCE sym_method_decl 7 0 774]),
     (5047, [Entry 1 False, REDUCE sym_method_decl 7 0 775]),
     (5049, [Entry 1 True, REDUCE sym_method_decl 7 0 775]),
     (5051, [Entry 1 False, REDUCE sym_method_decl 7 0 776]),
     (5053, [Entry 1 True, REDUCE sym_method_decl 7 0 776]),
     (5055, [Entry 1 False, REDUCE sym_method_decl 7 0 777]),
     (5057, [Entry 1 True, REDUCE sym_method_decl 7 0 777]),
     (5059, [Entry 1 False, REDUCE sym_method_decl 7 0 778]),
     (5061, [Entry 1 True, REDUCE sym_method_decl 7 0 778]),
     (5063, [Entry 1 False, REDUCE sym_method_decl 7 0 779]),
     (5065, [Entry 1 True, REDUCE sym_method_decl 7 0 779]),
     (5067, [Entry 1 False, REDUCE sym_method_decl 7 0 780]),
     (5069, [Entry 1 True, REDUCE sym_method_decl 7 0 780]),
     (5071, [Entry 1 False, REDUCE sym_if_stmt 7 0 783]),
     (5073, [Entry 1 True, REDUCE sym_if_stmt 7 0 783]),
     (5075, [Entry 1 False, REDUCE sym_if_stmt 7 0 461]),
     (5077, [Entry 1 True, REDUCE sym_if_stmt 7 0 461]),
     (5079, [Entry 1 False, REDUCE sym_if_stmt 7 0 784]),
     (5081, [Entry 1 True, REDUCE sym_if_stmt 7 0 784]),
     (5083, [Entry 1 False, REDUCE sym_case_stmt 7 0 785]),
     (5085, [Entry 1 True, REDUCE sym_case_stmt 7 0 785]),
     (5087, [Entry 1 False, REDUCE sym_method_decl 7 0 786]),
     (5089, [Entry 1 True, REDUCE sym_method_decl 7 0 786]),
     (5091, [Entry 1 False, REDUCE sym_method_decl 7 0 787]),
     (5093, [Entry 1 True, REDUCE sym_method_decl 7 0 787]),
     (5095, [Entry 1 False, REDUCE sym_method_decl 7 0 788]),
     (5097, [Entry 1 True, REDUCE sym_method_decl 7 0 788]),
     (5099, [Entry 1 False, REDUCE sym_method_decl 7 0 789]),
     (5101, [Entry 1 True, REDUCE sym_method_decl 7 0 789]),
     (5103, [Entry 1 False, REDUCE sym_method_decl 7 0 790]),
     (5105, [Entry 1 True, REDUCE sym_method_decl 7 0 790]),
     (5107, [Entry 1 False, REDUCE sym_method_decl 7 0 791]),
     (5109, [Entry 1 True, REDUCE sym_method_decl 7 0 791]),
     (5111, [Entry 1 False, REDUCE sym_method_decl 7 0 390]),
     (5113, [Entry 1 True, REDUCE sym_method_decl 7 0 390]),
     (5115, [Entry 1 False, REDUCE sym_method_decl 7 0 392]),
     (5117, [Entry 1 True, REDUCE sym_method_decl 7 0 392]),
     (5119, [Entry 1 False, REDUCE sym_method_decl 7 0 792]),
     (5121, [Entry 1 True, REDUCE sym_method_decl 7 0 792]),
     (5123, [Entry 1 False, REDUCE sym_method_decl 7 0 793]),
     (5125, [Entry 1 True, REDUCE sym_method_decl 7 0 793]),
     (5127, [Entry 1 False, REDUCE sym_method_decl 7 0 794]),
     (5129, [Entry 1 True, REDUCE sym_method_decl 7 0 794]),
     (5131, [Entry 1 False, REDUCE sym_method_decl 7 0 795]),
     (5133, [Entry 1 True, REDUCE sym_method_decl 7 0 795]),
     (5135, [Entry 1 False, REDUCE sym_method_decl 7 0 796]),
     (5137, [Entry 1 True, REDUCE sym_method_decl 7 0 796]),
     (5139, [Entry 1 False, REDUCE sym_method_decl 7 0 797]),
     (5141, [Entry 1 True, REDUCE sym_method_decl 7 0 797]),
     (5143, [Entry 1 False, REDUCE sym_method_decl 7 0 798]),
     (5145, [Entry 1 True, REDUCE sym_method_decl 7 0 798]),
     (5147, [Entry 1 False, REDUCE sym_method_decl 8 0 1189]),
     (5149, [Entry 1 True, REDUCE sym_method_decl 8 0 1189]),
     (5151, [Entry 1 False, REDUCE sym_method_decl 8 0 1190]),
     (5153, [Entry 1 True, REDUCE sym_method_decl 8 0 1190]),
     (5155, [Entry 1 False, REDUCE sym_method_decl 8 0 1191]),
     (5157, [Entry 1 True, REDUCE sym_method_decl 8 0 1191]),
     (5159, [Entry 1 False, REDUCE sym_method_decl 8 0 1192]),
     (5161, [Entry 1 True, REDUCE sym_method_decl 8 0 1192]),
     (5163, [Entry 1 False, REDUCE sym_method_decl 8 0 1193]),
     (5165, [Entry 1 True, REDUCE sym_method_decl 8 0 1193]),
     (5167, [Entry 1 False, REDUCE sym_method_decl 8 0 1194]),
     (5169, [Entry 1 True, REDUCE sym_method_decl 8 0 1194]),
     (5171, [Entry 1 False, REDUCE sym_method_decl 8 0 1195]),
     (5173, [Entry 1 True, REDUCE sym_method_decl 8 0 1195]),
     (5175, [Entry 1 False, REDUCE sym_method_decl 8 0 1196]),
     (5177, [Entry 1 True, REDUCE sym_method_decl 8 0 1196]),
     (5179, [Entry 1 False, REDUCE sym_method_decl 8 0 1197]),
     (5181, [Entry 1 True, REDUCE sym_method_decl 8 0 1197]),
     (5183, [Entry 1 False, REDUCE sym_method_decl 8 0 1198]),
     (5185, [Entry 1 True, REDUCE sym_method_decl 8 0 1198]),
     (5187, [Entry 1 False, REDUCE sym_method_decl 8 0 1199]),
     (5189, [Entry 1 True, REDUCE sym_method_decl 8 0 1199]),
     (5191, [Entry 1 False, REDUCE sym_if_stmt 8 0 1201]),
     (5193, [Entry 1 True, REDUCE sym_if_stmt 8 0 1201])]"

lemma ts_parse_actions_17_tiled: "tiled_from 4895 ts_parse_actions_17 \<and> after_runs 4895 ts_parse_actions_17 = 5195"
  unfolding ts_parse_actions_17_def by (simp cong: runs_weak)

lemma ts_parse_actions_17_ok: "list_all (\<lambda>(i, es). group_ok es) ts_parse_actions_17"
  unfolding ts_parse_actions_17_def
  by (simp add: group_ok_simps entry_action_ok_simps del: One_nat_def group_ok.simps cong: list_all_weak)

text \<open>Lines 483271 to 483420.\<close>

definition ts_parse_actions_18 :: "(nat \<times> TSParseActionEntry list) list" where
  "ts_parse_actions_18 =
    [(5195, [Entry 1 False, REDUCE sym_method_decl 8 0 1203]),
     (5197, [Entry 1 True, REDUCE sym_method_decl 8 0 1203]),
     (5199, [Entry 1 False, REDUCE sym_method_decl 8 0 1204]),
     (5201, [Entry 1 True, REDUCE sym_method_decl 8 0 1204]),
     (5203, [Entry 1 False, REDUCE sym_method_decl 8 0 1205]),
     (5205, [Entry 1 True, REDUCE sym_method_decl 8 0 1205]),
     (5207, [Entry 1 False, REDUCE sym_method_decl 8 0 1206]),
     (5209, [Entry 1 True, REDUCE sym_method_decl 8 0 1206]),
     (5211, [Entry 1 False, REDUCE sym_method_decl 8 0 1207]),
     (5213, [Entry 1 True, REDUCE sym_method_decl 8 0 1207]),
     (5215, [Entry 1 False, REDUCE sym_method_decl 8 0 1208]),
     (5217, [Entry 1 True, REDUCE sym_method_decl 8 0 1208]),
     (5219, [Entry 1 False, REDUCE sym_method_decl 8 0 672]),
     (5221, [Entry 1 True, REDUCE sym_method_decl 8 0 672]),
     (5223, [Entry 1 False, REDUCE sym_method_decl 8 0 1209]),
     (5225, [Entry 1 True, REDUCE sym_method_decl 8 0 1209]),
     (5227, [Entry 1 False, REDUCE sym_method_decl 8 0 1210]),
     (5229, [Entry 1 True, REDUCE sym_method_decl 8 0 1210]),
     (5231, [Entry 1 False, REDUCE sym_method_decl 8 0 1211]),
     (5233, [Entry 1 True, REDUCE sym_method_decl 8 0 1211]),
     (5235, [Entry 1 False, REDUCE sym_method_decl 8 0 1212]),
     (5237, [Entry 1 True, REDUCE sym_method_decl 8 0 1212]),
     (5239, [Entry 1 False, REDUCE sym_method_decl 8 0 1213]),
     (5241, [Entry 1 True, REDUCE sym_method_decl 8 0 1213]),
     (5243, [Entry 1 False, REDUCE sym_method_decl 8 0 1214]),
     (5245, [Entry 1 True, REDUCE sym_method_decl 8 0 1214]),
     (5247, [Entry 1 False, REDUCE sym_method_decl 8 0 1215]),
     (5249, [Entry 1 True, REDUCE sym_method_decl 8 0 1215]),
     (5251, [Entry 1 False, REDUCE sym_method_decl 8 0 1216]),
     (5253, [Entry 1 True, REDUCE sym_method_decl 8 0 1216]),
     (5255, [Entry 1 False, REDUCE sym_method_decl 9 0 1666]),
     (5257, [Entry 1 True, REDUCE sym_method_decl 9 0 1666]),
     (5259, [Entry 1 False, REDUCE sym_method_decl 9 0 1667]),
     (5261, [Entry 1 True, REDUCE sym_method_decl 9 0 1667]),
     (5263, [Entry 1 False, REDUCE sym_method_decl 9 0 1668]),
     (5265, [Entry 1 True, REDUCE sym_method_decl 9 0 1668]),
     (5267, [Entry 1 False, REDUCE sym_method_decl 9 0 1669]),
     (5269, [Entry 1 True, REDUCE sym_method_decl 9 0 1669]),
     (5271, [Entry 1 False, REDUCE sym_method_decl 9 0 1670]),
     (5273, [Entry 1 True, REDUCE sym_method_decl 9 0 1670]),
     (5275, [Entry 1 False, REDUCE sym_method_decl 9 0 1672]),
     (5277, [Entry 1 True, REDUCE sym_method_decl 9 0 1672]),
     (5279, [Entry 1 False, REDUCE sym_method_decl 9 0 1673]),
     (5281, [Entry 1 True, REDUCE sym_method_decl 9 0 1673]),
     (5283, [Entry 1 False, REDUCE sym_method_decl 9 0 1674]),
     (5285, [Entry 1 True, REDUCE sym_method_decl 9 0 1674]),
     (5287, [Entry 1 False, REDUCE sym_method_decl 9 0 1675]),
     (5289, [Entry 1 True, REDUCE sym_method_decl 9 0 1675]),
     (5291, [Entry 1 False, REDUCE sym_method_decl 9 0 1676]),
     (5293, [Entry 1 True, REDUCE sym_method_decl 9 0 1676]),
     (5295, [Entry 1 False, REDUCE sym_method_decl 9 0 1677]),
     (5297, [Entry 1 True, REDUCE sym_method_decl 9 0 1677]),
     (5299, [Entry 1 False, REDUCE sym_method_decl 9 0 1678]),
     (5301, [Entry 1 True, REDUCE sym_method_decl 9 0 1678]),
     (5303, [Entry 1 False, REDUCE sym_method_decl 9 0 1679]),
     (5305, [Entry 1 True, REDUCE sym_method_decl 9 0 1679]),
     (5307, [Entry 1 False, REDUCE sym_method_decl 9 0 1680]),
     (5309, [Entry 1 True, REDUCE sym_method_decl 9 0 1680]),
     (5311, [Entry 1 False, REDUCE sym_method_decl 9 0 1681]),
     (5313, [Entry 1 True, REDUCE sym_method_decl 9 0 1681]),
     (5315, [Entry 1 False, REDUCE sym_method_decl 9 0 1682]),
     (5317, [Entry 1 True, REDUCE sym_method_decl 9 0 1682]),
     (5319, [Entry 1 False, REDUCE sym_method_decl 10 0 2117]),
     (5321, [Entry 1 True, REDUCE sym_method_decl 10 0 2117]),
     (5323, [Entry 1 False, REDUCE sym_method_decl 10 0 2118]),
     (5325, [Entry 1 True, REDUCE sym_method_decl 10 0 2118]),
     (5327, [Entry 1 False, REDUCE sym_method_decl 10 0 2119]),
     (5329, [Entry 1 True, REDUCE sym_method_decl 10 0 2119]),
     (5331, [Entry 1 False, REDUCE sym_method_decl 10 0 2120]),
     (5333, [Entry 1 True, REDUCE sym_method_decl 10 0 2120]),
     (5335, [Entry 1 False, REDUCE sym_method_decl 10 0 2121]),
     (5337, [Entry 1 True, REDUCE sym_method_decl 10 0 2121]),
     (5339, [Entry 1 False, REDUCE sym_method_decl 10 0 2122]),
     (5341, [Entry 1 True, REDUCE sym_method_decl 10 0 2122]),
     (5343, [Entry 1 False, REDUCE sym_method_decl 11 0 2469]),
     (5345, [Entry 1 True, REDUCE sym_method_decl 11 0 2469]),
     (5347, [Entry 1 True, REDUCE sym_ERR_clause_outside_try 1 (-1) 0]),
     (5349, [Entry 2 False, REDUCE sym_pou_pragma 1 0 0, REDUCE sym__stmt 1 0 0]),
     (5352, [Entry 2 True, REDUCE sym_pou_pragma 1 0 0, REDUCE sym__stmt 1 0 0]),
     (5355, [Entry 1 False, REDUCE sym_method_decl 3 0 5]),
     (5357, [Entry 1 True, REDUCE sym_method_decl 3 0 5]),
     (5359, [Entry 1 False, REDUCE sym_try_stmt 3 0 58]),
     (5361, [Entry 1 True, REDUCE sym_try_stmt 3 0 58]),
     (5363, [Entry 1 False, REDUCE sym_try_stmt 3 0 59]),
     (5365, [Entry 1 True, REDUCE sym_try_stmt 3 0 59]), (5367, [Entry 1 False, SHIFT 2327]),
     (5369, [Entry 1 False, SHIFT 3155]), (5371, [Entry 1 False, SHIFT 42]),
     (5373, [Entry 1 False, REDUCE sym_ERR_method_decl_in_body 1 (-1) 0]),
     (5375, [Entry 1 True, REDUCE sym_ERR_method_decl_in_body 1 (-1) 0]),
     (5377, [Entry 1 False, REDUCE sym_wasm_pragma 4 0 109]),
     (5379, [Entry 1 True, REDUCE sym_wasm_pragma 4 0 109]),
     (5381, [Entry 1 False, REDUCE sym_method_decl 4 0 30]),
     (5383, [Entry 1 True, REDUCE sym_method_decl 4 0 30]),
     (5385, [Entry 1 False, REDUCE sym_method_decl 4 0 114]),
     (5387, [Entry 1 True, REDUCE sym_method_decl 4 0 114]),
     (5389, [Entry 1 False, REDUCE sym_method_decl 4 0 23]),
     (5391, [Entry 1 True, REDUCE sym_method_decl 4 0 23]),
     (5393, [Entry 1 False, REDUCE sym_method_decl 4 0 26]),
     (5395, [Entry 1 True, REDUCE sym_method_decl 4 0 26]),
     (5397, [Entry 1 False, REDUCE sym_method_decl 4 0 115]),
     (5399, [Entry 1 True, REDUCE sym_method_decl 4 0 115]), (5401, [Entry 1 False, SHIFT 2318]),
     (5403, [Entry 1 False, SHIFT 2301]), (5405, [Entry 1 False, SHIFT 2085]),
     (5407, [Entry 1 False, SHIFT 2135]), (5409, [Entry 1 False, REDUCE sym_allow_pragma 4 0 13]),
     (5411, [Entry 1 True, REDUCE sym_allow_pragma 4 0 13]),
     (5413, [Entry 1 False, REDUCE sym_if_stmt 4 0 132]),
     (5415, [Entry 1 True, REDUCE sym_if_stmt 4 0 132]), (5417, [Entry 1 False, SHIFT 3124]),
     (5419, [Entry 1 False, REDUCE sym_case_stmt 4 0 139]),
     (5421, [Entry 1 True, REDUCE sym_case_stmt 4 0 139]),
     (5423, [Entry 1 False, REDUCE sym_for_stmt 4 0 140]),
     (5425, [Entry 1 True, REDUCE sym_for_stmt 4 0 140]),
     (5427, [Entry 1 False, REDUCE sym_while_stmt 4 0 141]),
     (5429, [Entry 1 True, REDUCE sym_while_stmt 4 0 141]),
     (5431, [Entry 1 False, REDUCE sym_method_decl 5 0 248]),
     (5433, [Entry 1 True, REDUCE sym_method_decl 5 0 248]),
     (5435, [Entry 1 False, REDUCE sym_else_if_stmt 3 0 460]), (5437, [Entry 1 False, SHIFT 2330]),
     (5439, [Entry 1 False, SHIFT 3107]), (5441, [Entry 1 True, SHIFT 3345]),
     (5443, [Entry 1 False, REDUCE sym_catch_clause 1 0 0]), (5445, [Entry 1 False, SHIFT 2320]),
     (5447, [Entry 1 False, SHIFT 2304]), (5449, [Entry 1 False, SHIFT 3108]),
     (5451, [Entry 1 False, SHIFT 41]), (5453, [Entry 1 False, REDUCE sym_finally_clause 1 0 0]),
     (5455, [Entry 1 False, SHIFT 2305]), (5457, [Entry 1 False, SHIFT 3169]),
     (5459, [Entry 1 False, SHIFT 3171]), (5461, [Entry 1 False, SHIFT 2148]),
     (5463, [Entry 1 False, SHIFT 2151]), (5465, [Entry 1 False, SHIFT 2153]),
     (5467, [Entry 1 False, SHIFT 3173]), (5469, [Entry 1 False, REDUCE sym_catch_clause 4 0 264]),
     (5471, [Entry 1 False, SHIFT 2182]), (5473, [Entry 1 False, SHIFT 2184]),
     (5475, [Entry 1 False, SHIFT 2186]), (5477, [Entry 1 False, SHIFT 2216]),
     (5479, [Entry 1 False, SHIFT 3114]), (5481, [Entry 1 False, SHIFT 3117]),
     (5483, [Entry 1 False, SHIFT 3142]), (5485, [Entry 1 False, SHIFT 3119]),
     (5487, [Entry 1 False, SHIFT 45]), (5489, [Entry 1 True, SHIFT 2334]),
     (5491, [Entry 2 True, REDUCE aux_sym_stmt_list_repeat1 2 0 0, SHIFT_REPEAT 2334]),
     (5494, [Entry 2 False, REDUCE aux_sym_stmt_list_repeat1 2 0 0, SHIFT_REPEAT 2128]),
     (5497, [Entry 1 False, REDUCE sym_scoped_identifier 3 0 105])]"

lemma ts_parse_actions_18_tiled: "tiled_from 5195 ts_parse_actions_18 \<and> after_runs 5195 ts_parse_actions_18 = 5499"
  unfolding ts_parse_actions_18_def by (simp cong: runs_weak)

lemma ts_parse_actions_18_ok: "list_all (\<lambda>(i, es). group_ok es) ts_parse_actions_18"
  unfolding ts_parse_actions_18_def
  by (simp add: group_ok_simps entry_action_ok_simps del: One_nat_def group_ok.simps cong: list_all_weak)

text \<open>Lines 483421 to 483570.\<close>

definition ts_parse_actions_19 :: "(nat \<times> TSParseActionEntry list) list" where
  "ts_parse_actions_19 =
    [(5499, [Entry 1 True, REDUCE sym_scoped_identifier 3 0 105]),
     (5501, [Entry 1 False, REDUCE sym_namespace_access 1 0 0]),
     (5503, [Entry 1 True, REDUCE sym_namespace_access 1 0 0]),
     (5505, [Entry 1 False, REDUCE sym__path 1 0 0]), (5507, [Entry 1 False, SHIFT 77]),
     (5509, [Entry 1 True, SHIFT 7705]), (5511, [Entry 1 True, SHIFT 7838]),
     (5513, [Entry 1 True, SHIFT 7506]), (5515, [Entry 1 False, SHIFT 3307]),
     (5517, [Entry 1 True, SHIFT 7673]), (5519, [Entry 1 True, SHIFT 7674]),
     (5521, [Entry 1 True, SHIFT 7575]), (5523, [Entry 1 True, SHIFT 7551]),
     (5525, [Entry 1 True, SHIFT 3848]), (5527, [Entry 1 True, SHIFT 7872]),
     (5529, [Entry 1 True, SHIFT 7361]), (5531, [Entry 1 False, REDUCE sym_string_name 1 0 0]),
     (5533, [Entry 1 True, REDUCE sym_string_name 1 0 0]), (5535, [Entry 1 True, SHIFT 40]),
     (5537, [Entry 1 False, REDUCE sym_ERR_fb_variables_after_method 1 0 0]),
     (5539, [Entry 1 True, REDUCE sym_ERR_fb_variables_after_method 1 0 0]),
     (5541, [Entry 1 True, SHIFT 7798]), (5543, [Entry 1 True, SHIFT 7902]),
     (5545, [Entry 1 True, SHIFT 4442]),
     (5547, [Entry 1 False, REDUCE aux_sym_ERR_fb_variables_after_method_repeat1 2 0 0]),
     (5549, [Entry 1 True, REDUCE aux_sym_ERR_fb_variables_after_method_repeat1 2 0 0]),
     (5551, [Entry 2 False, REDUCE aux_sym_ERR_fb_variables_after_method_repeat1 2 0 0, SHIFT_REPEAT 7480]),
     (5554, [Entry 2 False, REDUCE aux_sym_ERR_fb_variables_after_method_repeat1 2 0 0, SHIFT_REPEAT 7497]),
     (5557, [Entry 2 False, REDUCE aux_sym_ERR_fb_variables_after_method_repeat1 2 0 0, SHIFT_REPEAT 7494]),
     (5560, [Entry 2 False, REDUCE aux_sym_ERR_fb_variables_after_method_repeat1 2 0 0, SHIFT_REPEAT 3308]),
     (5563, [Entry 2 False, REDUCE aux_sym_ERR_fb_variables_after_method_repeat1 2 0 0, SHIFT_REPEAT 7652]),
     (5566, [Entry 2 False, REDUCE aux_sym_ERR_fb_variables_after_method_repeat1 2 0 0, SHIFT_REPEAT 7654]),
     (5569, [Entry 2 False, REDUCE aux_sym_ERR_fb_variables_after_method_repeat1 2 0 0, SHIFT_REPEAT 7576]),
     (5572, [Entry 2 False, REDUCE aux_sym_ERR_fb_variables_after_method_repeat1 2 0 0, SHIFT_REPEAT 7898]),
     (5575, [Entry 2 False, REDUCE aux_sym_ERR_fb_variables_after_method_repeat1 2 0 0, SHIFT_REPEAT 7220]),
     (5578, [Entry 1 True, SHIFT 7784]), (5580, [Entry 1 True, SHIFT 7888]),
     (5582, [Entry 1 True, SHIFT 3451]), (5584, [Entry 1 True, SHIFT 7698]),
     (5586, [Entry 1 True, SHIFT 7851]), (5588, [Entry 1 True, SHIFT 4364]),
     (5590, [Entry 1 False, REDUCE sym_multibits_type_name 1 0 0]),
     (5592, [Entry 1 True, REDUCE sym_multibits_type_name 1 0 0]),
     (5594, [Entry 1 False, REDUCE sym_sign_int_type_name 1 0 0]),
     (5596, [Entry 1 True, REDUCE sym_sign_int_type_name 1 0 0]),
     (5598, [Entry 1 False, REDUCE sym_char_name 1 0 0]),
     (5600, [Entry 1 True, REDUCE sym_char_name 1 0 0]),
     (5602, [Entry 1 False, REDUCE sym_int_type_name 1 0 0]),
     (5604, [Entry 1 True, REDUCE sym_int_type_name 1 0 0]),
     (5606, [Entry 1 False, REDUCE sym_string_type_name 1 0 0]),
     (5608, [Entry 1 True, REDUCE sym_string_type_name 1 0 0]), (5610, [Entry 1 False, SHIFT 2336]),
     (5612, [Entry 1 True, SHIFT 7944]), (5614, [Entry 1 False, SHIFT 2363]),
     (5616, [Entry 1 False, SHIFT 2364]), (5618, [Entry 1 False, SHIFT 10057]),
     (5620, [Entry 1 False, SHIFT 7482]), (5622, [Entry 1 False, SHIFT 3287]),
     (5624, [Entry 1 False, REDUCE sym_unsign_int_type_name 1 0 0]),
     (5626, [Entry 1 True, REDUCE sym_unsign_int_type_name 1 0 0]),
     (5628, [Entry 1 False, REDUCE sym_string_name 4 0 235]),
     (5630, [Entry 1 True, REDUCE sym_string_name 4 0 235]),
     (5632, [Entry 1 False, REDUCE sym_real_type_name 1 0 0]),
     (5634, [Entry 1 True, REDUCE sym_real_type_name 1 0 0]),
     (5636, [Entry 1 False, REDUCE sym_numeric_type_name 1 0 0]),
     (5638, [Entry 1 True, REDUCE sym_numeric_type_name 1 0 0]),
     (5640, [Entry 1 False, REDUCE sym__elem_type_name 1 0 0]),
     (5642, [Entry 1 True, REDUCE sym__elem_type_name 1 0 0]),
     (5644, [Entry 1 False, REDUCE sym_bit_str_type_name 1 0 0]),
     (5646, [Entry 1 True, REDUCE sym_bit_str_type_name 1 0 0]),
     (5648, [Entry 1 False, REDUCE sym_case_selection 3 0 463]),
     (5650, [Entry 1 True, REDUCE sym_case_selection 3 0 463]),
     (5652, [Entry 1 False, REDUCE aux_sym_func_decl_repeat3 2 0 0]),
     (5654, [Entry 1 True, REDUCE aux_sym_func_decl_repeat3 2 0 0]),
     (5656, [Entry 2 False, REDUCE aux_sym_func_decl_repeat3 2 0 0, SHIFT_REPEAT 7475]),
     (5659, [Entry 2 False, REDUCE aux_sym_func_decl_repeat3 2 0 0, SHIFT_REPEAT 7486]),
     (5662, [Entry 2 False, REDUCE aux_sym_func_decl_repeat3 2 0 0, SHIFT_REPEAT 7494]),
     (5665, [Entry 2 False, REDUCE aux_sym_func_decl_repeat3 2 0 0, SHIFT_REPEAT 6850]),
     (5668, [Entry 2 False, REDUCE aux_sym_func_decl_repeat3 2 0 0, SHIFT_REPEAT 7652]),
     (5671, [Entry 2 False, REDUCE aux_sym_func_decl_repeat3 2 0 0, SHIFT_REPEAT 7654]),
     (5674, [Entry 2 False, REDUCE aux_sym_func_decl_repeat3 2 0 0, SHIFT_REPEAT 7576]),
     (5677, [Entry 2 False, REDUCE aux_sym_func_decl_repeat3 2 0 0, SHIFT_REPEAT 7898]),
     (5680, [Entry 2 False, REDUCE aux_sym_func_decl_repeat3 2 0 0, SHIFT_REPEAT 7220]),
     (5683, [Entry 1 False, REDUCE aux_sym_method_decl_repeat1 2 0 0]),
     (5685, [Entry 1 True, REDUCE aux_sym_method_decl_repeat1 2 0 0]),
     (5687, [Entry 2 False, REDUCE aux_sym_method_decl_repeat1 2 0 0, SHIFT_REPEAT 7475]),
     (5690, [Entry 2 False, REDUCE aux_sym_method_decl_repeat1 2 0 0, SHIFT_REPEAT 7486]),
     (5693, [Entry 2 False, REDUCE aux_sym_method_decl_repeat1 2 0 0, SHIFT_REPEAT 7494]),
     (5696, [Entry 2 False, REDUCE aux_sym_method_decl_repeat1 2 0 0, SHIFT_REPEAT 6850]),
     (5699, [Entry 2 False, REDUCE aux_sym_method_decl_repeat1 2 0 0, SHIFT_REPEAT 7652]),
     (5702, [Entry 2 False, REDUCE aux_sym_method_decl_repeat1 2 0 0, SHIFT_REPEAT 7654]),
     (5705, [Entry 2 False, REDUCE aux_sym_method_decl_repeat1 2 0 0, SHIFT_REPEAT 7576]),
     (5708, [Entry 2 False, REDUCE aux_sym_method_decl_repeat1 2 0 0, SHIFT_REPEAT 7898]),
     (5711, [Entry 2 False, REDUCE aux_sym_method_decl_repeat1 2 0 0, SHIFT_REPEAT 7220]),
     (5714, [Entry 2 True, REDUCE aux_sym_deref_expression_repeat1 2 0 0, SHIFT_REPEAT 2384]),
     (5717, [Entry 1 False, REDUCE sym_data_type_access 1 0 0]),
     (5719, [Entry 1 True, REDUCE sym_data_type_access 1 0 0]), (5721, [Entry 1 True, SHIFT 7718]),
     (5723, [Entry 1 True, SHIFT 7858]), (5725, [Entry 1 True, SHIFT 4987]),
     (5727, [Entry 1 False, SHIFT 9037]), (5729, [Entry 1 True, SHIFT 7806]),
     (5731, [Entry 1 True, SHIFT 6519]), (5733, [Entry 1 True, SHIFT 7757]),
     (5735, [Entry 1 True, SHIFT 6928]), (5737, [Entry 1 True, SHIFT 7743]),
     (5739, [Entry 1 True, SHIFT 6542]), (5741, [Entry 1 True, SHIFT 7765]),
     (5743, [Entry 1 True, SHIFT 6566]), (5745, [Entry 1 True, SHIFT 7760]),
     (5747, [Entry 1 True, SHIFT 6981]), (5749, [Entry 1 True, SHIFT 7754]),
     (5751, [Entry 1 True, SHIFT 4106]), (5753, [Entry 1 True, SHIFT 7761]),
     (5755, [Entry 1 True, SHIFT 7857]), (5757, [Entry 1 True, SHIFT 4163]),
     (5759, [Entry 1 True, SHIFT 7712]), (5761, [Entry 1 True, SHIFT 4742]),
     (5763, [Entry 1 True, SHIFT 7766]), (5765, [Entry 1 True, SHIFT 6619]),
     (5767, [Entry 1 True, SHIFT 7767]), (5769, [Entry 1 True, SHIFT 4272]),
     (5771, [Entry 1 True, SHIFT 7783]), (5773, [Entry 1 True, SHIFT 4315]),
     (5775, [Entry 1 True, SHIFT 7713]), (5777, [Entry 1 True, SHIFT 6631]),
     (5779, [Entry 1 True, SHIFT 7801]), (5781, [Entry 1 True, SHIFT 4403]),
     (5783, [Entry 1 True, SHIFT 7717]), (5785, [Entry 1 True, SHIFT 4443]),
     (5787, [Entry 1 True, SHIFT 7764]), (5789, [Entry 1 True, SHIFT 7865]),
     (5791, [Entry 1 True, SHIFT 6949]), (5793, [Entry 1 True, SHIFT 7792]),
     (5795, [Entry 1 True, SHIFT 7896]), (5797, [Entry 1 True, SHIFT 4342]),
     (5799, [Entry 1 True, SHIFT 7744]), (5801, [Entry 1 True, SHIFT 5679]),
     (5803, [Entry 1 True, SHIFT 7722]), (5805, [Entry 1 True, SHIFT 5052]),
     (5807, [Entry 1 True, SHIFT 7789]), (5809, [Entry 1 True, SHIFT 5796]),
     (5811, [Entry 1 True, SHIFT 7729]), (5813, [Entry 1 True, SHIFT 7822]),
     (5815, [Entry 1 True, SHIFT 5180]), (5817, [Entry 1 True, SHIFT 7746]),
     (5819, [Entry 1 True, SHIFT 6852]), (5821, [Entry 1 True, SHIFT 7791]),
     (5823, [Entry 1 True, SHIFT 5854]), (5825, [Entry 1 True, SHIFT 7755])]"

lemma ts_parse_actions_19_tiled: "tiled_from 5499 ts_parse_actions_19 \<and> after_runs 5499 ts_parse_actions_19 = 5827"
  unfolding ts_parse_actions_19_def by (simp cong: runs_weak)

lemma ts_parse_actions_19_ok: "list_all (\<lambda>(i, es). group_ok es) ts_parse_actions_19"
  unfolding ts_parse_actions_19_def
  by (simp add: group_ok_simps entry_action_ok_simps del: One_nat_def group_ok.simps cong: list_all_weak)

text \<open>Lines 483571 to 483720.\<close>

definition ts_parse_actions_20 :: "(nat \<times> TSParseActionEntry list) list" where
  "ts_parse_actions_20 =
    [(5827, [Entry 1 True, SHIFT 4117]), (5829, [Entry 1 False, REDUCE sym_add 1 0 0]),
     (5831, [Entry 1 True, REDUCE sym_add 1 0 0]),
     (5833, [Entry 2 False, REDUCE sym_unary 1 0 0, SHIFT 9557]),
     (5836, [Entry 1 False, REDUCE sym_unary 1 0 0]),
     (5838, [Entry 1 True, REDUCE sym_unary 1 0 0]), (5840, [Entry 1 False, REDUCE sym_eq 1 0 0]),
     (5842, [Entry 1 True, REDUCE sym_eq 1 0 0]), (5844, [Entry 1 False, REDUCE sym_mult 1 0 0]),
     (5846, [Entry 1 True, REDUCE sym_mult 1 0 0]), (5848, [Entry 1 False, REDUCE sym_ord 1 0 0]),
     (5850, [Entry 1 True, REDUCE sym_ord 1 0 0]),
     (5852, [Entry 1 False, REDUCE sym_ERR_missing_equal_in_for_control 1 0 0]),
     (5854, [Entry 1 True, REDUCE sym_ERR_missing_equal_in_for_control 1 0 0]),
     (5856, [Entry 1 False, REDUCE aux_sym_prog_decl_repeat1 2 0 0]),
     (5858, [Entry 1 True, REDUCE aux_sym_prog_decl_repeat1 2 0 0]),
     (5860, [Entry 2 False, REDUCE aux_sym_prog_decl_repeat1 2 0 0, SHIFT_REPEAT 7504]),
     (5863, [Entry 2 False, REDUCE aux_sym_prog_decl_repeat1 2 0 0, SHIFT_REPEAT 7505]),
     (5866, [Entry 2 False, REDUCE aux_sym_prog_decl_repeat1 2 0 0, SHIFT_REPEAT 7532]),
     (5869, [Entry 2 False, REDUCE aux_sym_prog_decl_repeat1 2 0 0, SHIFT_REPEAT 3309]),
     (5872, [Entry 2 False, REDUCE aux_sym_prog_decl_repeat1 2 0 0, SHIFT_REPEAT 7657]),
     (5875, [Entry 2 False, REDUCE aux_sym_prog_decl_repeat1 2 0 0, SHIFT_REPEAT 7658]),
     (5878, [Entry 2 False, REDUCE aux_sym_prog_decl_repeat1 2 0 0, SHIFT_REPEAT 7569]),
     (5881, [Entry 2 False, REDUCE aux_sym_prog_decl_repeat1 2 0 0, SHIFT_REPEAT 7895]),
     (5884, [Entry 1 False, REDUCE sym_ERR_missing_dot_in_for_control 1 0 0]),
     (5886, [Entry 1 True, REDUCE sym_ERR_missing_dot_in_for_control 1 0 0]),
     (5888, [Entry 1 False, REDUCE sym_ERR_output_assign_in_for_control 1 0 0]),
     (5890, [Entry 1 True, REDUCE sym_ERR_output_assign_in_for_control 1 0 0]),
     (5892, [Entry 1 True, SHIFT 7711]),
     (5894, [Entry 1 True, REDUCE sym_ERR_implements_before_extends 2 0 0]),
     (5896, [Entry 1 True, SHIFT 6615]),
     (5898, [Entry 1 False, REDUCE aux_sym_fb_decl_repeat3 2 0 0]),
     (5900, [Entry 2 False, REDUCE aux_sym_fb_decl_repeat3 2 0 0, SHIFT_REPEAT 7776]),
     (5903, [Entry 2 True, REDUCE aux_sym_fb_decl_repeat3 2 0 0, SHIFT_REPEAT 7502]),
     (5906, [Entry 2 True, REDUCE aux_sym_fb_decl_repeat3 2 0 0, SHIFT_REPEAT 7531]),
     (5909, [Entry 2 True, REDUCE aux_sym_fb_decl_repeat3 2 0 0, SHIFT_REPEAT 7522]),
     (5912, [Entry 2 True, REDUCE aux_sym_fb_decl_repeat3 2 0 0, SHIFT_REPEAT 7533]),
     (5915, [Entry 1 True, REDUCE aux_sym_fb_decl_repeat3 2 0 0]),
     (5917, [Entry 2 False, REDUCE aux_sym_fb_decl_repeat3 2 0 0, SHIFT_REPEAT 7499]),
     (5920, [Entry 1 True, SHIFT 4934]), (5922, [Entry 1 True, SHIFT 4092]),
     (5924, [Entry 1 True, SHIFT 4381]), (5926, [Entry 1 False, SHIFT 2942]),
     (5928, [Entry 1 True, SHIFT 4799]), (5930, [Entry 1 True, SHIFT 2647]),
     (5932, [Entry 1 True, SHIFT 5668]), (5934, [Entry 1 True, SHIFT 4096]),
     (5936, [Entry 1 True, SHIFT 4114]), (5938, [Entry 1 True, SHIFT 4134]),
     (5940, [Entry 1 True, SHIFT 4343]), (5942, [Entry 1 True, SHIFT 28]),
     (5944, [Entry 2 True, REDUCE sym_any_invocation_kind 2 0 60, SHIFT 7656]),
     (5947, [Entry 1 True, SHIFT 2384]), (5949, [Entry 1 True, SHIFT 4402]),
     (5951, [Entry 1 True, SHIFT 4502]), (5953, [Entry 1 True, SHIFT 4863]),
     (5955, [Entry 1 True, SHIFT 6505]), (5957, [Entry 1 True, SHIFT 5897]),
     (5959, [Entry 1 True, SHIFT 3875]), (5961, [Entry 1 True, SHIFT 4788]),
     (5963, [Entry 1 True, SHIFT 4980]), (5965, [Entry 1 True, SHIFT 3987]),
     (5967, [Entry 1 True, SHIFT 5172]), (5969, [Entry 1 True, SHIFT 5266]),
     (5971, [Entry 1 True, SHIFT 5703]), (5973, [Entry 1 True, SHIFT 4228]),
     (5975, [Entry 1 True, SHIFT 6500]), (5977, [Entry 1 True, SHIFT 5833]),
     (5979, [Entry 1 True, SHIFT 6235]), (5981, [Entry 1 True, SHIFT 3907]),
     (5983, [Entry 1 True, SHIFT 4310]), (5985, [Entry 1 True, SHIFT 6555]),
     (5987, [Entry 1 True, SHIFT 6467]), (5989, [Entry 1 True, SHIFT 6488]),
     (5991, [Entry 1 True, SHIFT 6696]), (5993, [Entry 1 True, SHIFT 6946]),
     (5995, [Entry 1 True, SHIFT 3852]), (5997, [Entry 1 True, SHIFT 5699]),
     (5999, [Entry 1 False, REDUCE sym_for_list 4 0 464]),
     (6001, [Entry 1 True, REDUCE sym_for_list 4 0 464]), (6003, [Entry 1 False, SHIFT 57]),
     (6005, [Entry 1 True, SHIFT 6233]), (6007, [Entry 1 True, SHIFT 6528]),
     (6009, [Entry 1 True, SHIFT 6356]), (6011, [Entry 1 True, SHIFT 6758]),
     (6013, [Entry 1 True, SHIFT 6072]), (6015, [Entry 1 True, SHIFT 6512]),
     (6017, [Entry 1 True, SHIFT 3882]), (6019, [Entry 1 True, SHIFT 5747]),
     (6021, [Entry 1 True, SHIFT 6470]), (6023, [Entry 1 True, SHIFT 3914]),
     (6025, [Entry 1 True, SHIFT 5534]), (6027, [Entry 1 True, SHIFT 5599]),
     (6029, [Entry 1 True, SHIFT 3900]), (6031, [Entry 1 True, SHIFT 3947]),
     (6033, [Entry 1 True, SHIFT 4806]),
     (6035, [Entry 2 True, REDUCE sym_any_invocation_kind 3 0 146, SHIFT 7656]),
     (6038, [Entry 1 True, SHIFT 6491]), (6040, [Entry 1 True, SHIFT 3944]),
     (6042, [Entry 1 True, SHIFT 5844]), (6044, [Entry 1 True, SHIFT 6842]),
     (6046, [Entry 1 True, SHIFT 5621]), (6048, [Entry 1 True, SHIFT 3845]),
     (6050, [Entry 1 True, SHIFT 7007]), (6052, [Entry 1 True, SHIFT 3980]),
     (6054, [Entry 2 True, REDUCE sym_begin_path_expression 1 0 0, SHIFT 7656]),
     (6057, [Entry 1 True, SHIFT 6592]), (6059, [Entry 1 True, SHIFT 6112]),
     (6061, [Entry 1 True, SHIFT 4763]), (6063, [Entry 1 True, SHIFT 6915]),
     (6065, [Entry 1 True, SHIFT 3831]), (6067, [Entry 1 True, SHIFT 6886]),
     (6069, [Entry 1 True, SHIFT 3966]), (6071, [Entry 1 True, SHIFT 3983]),
     (6073, [Entry 1 True, SHIFT 4785]), (6075, [Entry 1 True, SHIFT 4351]),
     (6077, [Entry 2 True, REDUCE sym_any_invocation 1 0 8, SHIFT 7469]),
     (6080, [Entry 1 True, SHIFT 2936]), (6082, [Entry 1 False, REDUCE sym_for_list 6 0 1202]),
     (6084, [Entry 1 True, REDUCE sym_for_list 6 0 1202]), (6086, [Entry 1 True, SHIFT 6898]),
     (6088, [Entry 1 True, SHIFT 3825]), (6090, [Entry 1 True, SHIFT 3827]),
     (6092, [Entry 1 True, SHIFT 3829]), (6094, [Entry 1 True, SHIFT 3832]),
     (6096, [Entry 1 True, SHIFT 3836]), (6098, [Entry 1 True, SHIFT 3839]),
     (6100, [Entry 1 True, SHIFT 3843]), (6102, [Entry 1 True, SHIFT 3846]),
     (6104, [Entry 1 True, SHIFT 3850]), (6106, [Entry 1 True, SHIFT 3857]),
     (6108, [Entry 1 True, SHIFT 3859]), (6110, [Entry 1 True, SHIFT 3861]),
     (6112, [Entry 1 True, SHIFT 3864]), (6114, [Entry 1 True, SHIFT 3866]),
     (6116, [Entry 1 True, SHIFT 3868]), (6118, [Entry 1 True, SHIFT 3873]),
     (6120, [Entry 1 True, SHIFT 3876]), (6122, [Entry 1 True, SHIFT 3887]),
     (6124, [Entry 1 True, SHIFT 3889]), (6126, [Entry 1 True, SHIFT 3891]),
     (6128, [Entry 1 True, SHIFT 3894]), (6130, [Entry 1 True, SHIFT 3896]),
     (6132, [Entry 1 True, SHIFT 3898]), (6134, [Entry 1 True, SHIFT 3905]),
     (6136, [Entry 1 True, SHIFT 3908]), (6138, [Entry 1 True, SHIFT 3912]),
     (6140, [Entry 1 True, SHIFT 3915]), (6142, [Entry 1 True, SHIFT 3919]),
     (6144, [Entry 1 True, SHIFT 3922])]"

lemma ts_parse_actions_20_tiled: "tiled_from 5827 ts_parse_actions_20 \<and> after_runs 5827 ts_parse_actions_20 = 6146"
  unfolding ts_parse_actions_20_def by (simp cong: runs_weak)

lemma ts_parse_actions_20_ok: "list_all (\<lambda>(i, es). group_ok es) ts_parse_actions_20"
  unfolding ts_parse_actions_20_def
  by (simp add: group_ok_simps entry_action_ok_simps del: One_nat_def group_ok.simps cong: list_all_weak)

text \<open>Lines 483721 to 483870.\<close>

definition ts_parse_actions_21 :: "(nat \<times> TSParseActionEntry list) list" where
  "ts_parse_actions_21 =
    [(6146, [Entry 1 True, SHIFT 3926]), (6148, [Entry 1 True, SHIFT 3929]),
     (6150, [Entry 1 True, SHIFT 3931]), (6152, [Entry 1 True, SHIFT 3933]),
     (6154, [Entry 1 True, SHIFT 3938]), (6156, [Entry 1 True, SHIFT 3940]),
     (6158, [Entry 1 True, SHIFT 3942]), (6160, [Entry 1 True, SHIFT 3945]),
     (6162, [Entry 1 True, SHIFT 3949]), (6164, [Entry 1 True, SHIFT 3952]),
     (6166, [Entry 1 True, SHIFT 3956]), (6168, [Entry 1 True, SHIFT 3960]),
     (6170, [Entry 1 True, SHIFT 3962]), (6172, [Entry 1 True, SHIFT 3964]),
     (6174, [Entry 1 True, SHIFT 3967]), (6176, [Entry 1 True, SHIFT 3971]),
     (6178, [Entry 1 True, SHIFT 3974]), (6180, [Entry 1 True, SHIFT 3978]),
     (6182, [Entry 1 True, SHIFT 3981]), (6184, [Entry 1 True, SHIFT 3985]),
     (6186, [Entry 1 True, SHIFT 3992]), (6188, [Entry 1 True, SHIFT 3994]),
     (6190, [Entry 1 True, SHIFT 3996]), (6192, [Entry 1 True, SHIFT 3999]),
     (6194, [Entry 1 True, SHIFT 4001]), (6196, [Entry 1 True, SHIFT 4003]),
     (6198, [Entry 1 True, SHIFT 5478]), (6200, [Entry 1 True, SHIFT 5585]),
     (6202, [Entry 1 True, SHIFT 5596]), (6204, [Entry 1 True, SHIFT 5618]),
     (6206, [Entry 1 True, SHIFT 5622]), (6208, [Entry 1 True, SHIFT 5656]),
     (6210, [Entry 1 True, SHIFT 5669]), (6212, [Entry 1 True, SHIFT 5677]),
     (6214, [Entry 1 True, SHIFT 5681]), (6216, [Entry 1 True, SHIFT 5697]),
     (6218, [Entry 1 True, SHIFT 5718]), (6220, [Entry 1 True, SHIFT 5723]),
     (6222, [Entry 1 True, SHIFT 5736]), (6224, [Entry 1 True, SHIFT 5748]),
     (6226, [Entry 1 True, SHIFT 4414]), (6228, [Entry 1 True, SHIFT 5791]),
     (6230, [Entry 1 True, SHIFT 5798]), (6232, [Entry 1 True, SHIFT 5835]),
     (6234, [Entry 1 True, SHIFT 5876]), (6236, [Entry 1 True, SHIFT 5916]),
     (6238, [Entry 1 True, SHIFT 3419]), (6240, [Entry 1 True, SHIFT 5956]),
     (6242, [Entry 1 True, SHIFT 6061]), (6244, [Entry 1 True, SHIFT 6073]),
     (6246, [Entry 1 True, SHIFT 6109]), (6248, [Entry 1 True, SHIFT 6131]),
     (6250, [Entry 1 True, SHIFT 6134]), (6252, [Entry 1 True, SHIFT 6136]),
     (6254, [Entry 1 True, SHIFT 6169]), (6256, [Entry 1 True, SHIFT 6210]),
     (6258, [Entry 1 True, SHIFT 6228]), (6260, [Entry 1 True, SHIFT 6345]),
     (6262, [Entry 1 True, SHIFT 6357]), (6264, [Entry 1 True, SHIFT 6468]),
     (6266, [Entry 1 True, SHIFT 6471]), (6268, [Entry 1 True, SHIFT 4933]),
     (6270, [Entry 1 True, SHIFT 6475]), (6272, [Entry 1 True, SHIFT 6478]),
     (6274, [Entry 1 True, SHIFT 6481]), (6276, [Entry 1 True, SHIFT 6483]),
     (6278, [Entry 1 True, SHIFT 6485]), (6280, [Entry 1 True, SHIFT 6503]),
     (6282, [Entry 1 True, SHIFT 6506]), (6284, [Entry 1 True, SHIFT 3540]),
     (6286, [Entry 1 True, SHIFT 6510]), (6288, [Entry 1 True, SHIFT 6513]),
     (6290, [Entry 1 True, SHIFT 6517]), (6292, [Entry 1 True, SHIFT 6520]),
     (6294, [Entry 1 True, SHIFT 5059]), (6296, [Entry 1 True, SHIFT 6526]),
     (6298, [Entry 1 True, SHIFT 6533]), (6300, [Entry 1 True, SHIFT 6535]),
     (6302, [Entry 1 True, SHIFT 6538]), (6304, [Entry 1 True, SHIFT 5112]),
     (6306, [Entry 1 True, SHIFT 5139]), (6308, [Entry 1 True, SHIFT 5211]),
     (6310, [Entry 1 True, SHIFT 5252]), (6312, [Entry 1 True, SHIFT 4745]),
     (6314, [Entry 1 True, SHIFT 4748]), (6316, [Entry 1 True, SHIFT 4750]),
     (6318, [Entry 1 True, SHIFT 4752]), (6320, [Entry 1 True, SHIFT 4757]),
     (6322, [Entry 1 True, SHIFT 4759]), (6324, [Entry 1 True, SHIFT 4761]),
     (6326, [Entry 1 True, SHIFT 4764]), (6328, [Entry 1 True, SHIFT 4768]),
     (6330, [Entry 1 True, SHIFT 4771]), (6332, [Entry 1 True, SHIFT 4775]),
     (6334, [Entry 1 True, SHIFT 4779]), (6336, [Entry 1 True, SHIFT 4781]),
     (6338, [Entry 1 True, SHIFT 4783]), (6340, [Entry 1 True, SHIFT 4786]),
     (6342, [Entry 1 True, SHIFT 4790]), (6344, [Entry 1 True, SHIFT 4793]),
     (6346, [Entry 1 True, SHIFT 4797]), (6348, [Entry 1 True, SHIFT 4800]),
     (6350, [Entry 1 True, SHIFT 4804]), (6352, [Entry 1 True, SHIFT 4811]),
     (6354, [Entry 1 True, SHIFT 4813]), (6356, [Entry 1 True, SHIFT 4815]),
     (6358, [Entry 1 True, SHIFT 4818]), (6360, [Entry 1 True, SHIFT 4820]),
     (6362, [Entry 1 True, SHIFT 4822]), (6364, [Entry 1 True, SHIFT 4828]),
     (6366, [Entry 1 True, SHIFT 4832]), (6368, [Entry 1 True, SHIFT 4835]),
     (6370, [Entry 1 True, SHIFT 4837]), (6372, [Entry 1 True, SHIFT 4839]),
     (6374, [Entry 1 True, SHIFT 4845]), (6376, [Entry 1 True, SHIFT 4848]),
     (6378, [Entry 1 True, SHIFT 4850]), (6380, [Entry 1 True, SHIFT 4852]),
     (6382, [Entry 1 True, SHIFT 4857]), (6384, [Entry 1 True, SHIFT 4859]),
     (6386, [Entry 1 True, SHIFT 4861]), (6388, [Entry 1 True, SHIFT 4864]),
     (6390, [Entry 1 True, SHIFT 4868]), (6392, [Entry 1 True, SHIFT 4871]),
     (6394, [Entry 1 True, SHIFT 4875]), (6396, [Entry 1 True, SHIFT 6521]),
     (6398, [Entry 1 True, SHIFT 6539]), (6400, [Entry 1 True, SHIFT 6543]),
     (6402, [Entry 1 True, SHIFT 6554]), (6404, [Entry 1 True, SHIFT 6590]),
     (6406, [Entry 1 True, SHIFT 6596]), (6408, [Entry 1 True, SHIFT 6611]),
     (6410, [Entry 1 True, SHIFT 6632]), (6412, [Entry 1 True, SHIFT 6639]),
     (6414, [Entry 1 True, SHIFT 6657]), (6416, [Entry 1 True, SHIFT 6672]),
     (6418, [Entry 1 True, SHIFT 6674]), (6420, [Entry 1 True, SHIFT 6693]),
     (6422, [Entry 1 True, SHIFT 6721]), (6424, [Entry 1 True, SHIFT 6787]),
     (6426, [Entry 1 True, SHIFT 6827]), (6428, [Entry 1 True, SHIFT 6843]),
     (6430, [Entry 1 True, SHIFT 6848]), (6432, [Entry 1 True, SHIFT 6868]),
     (6434, [Entry 1 True, SHIFT 6877]), (6436, [Entry 1 True, SHIFT 4122]),
     (6438, [Entry 1 True, SHIFT 6900]), (6440, [Entry 1 True, SHIFT 6910]),
     (6442, [Entry 1 True, SHIFT 6917]), (6444, [Entry 1 True, SHIFT 6925])]"

lemma ts_parse_actions_21_tiled: "tiled_from 6146 ts_parse_actions_21 \<and> after_runs 6146 ts_parse_actions_21 = 6446"
  unfolding ts_parse_actions_21_def by (simp cong: runs_weak)

lemma ts_parse_actions_21_ok: "list_all (\<lambda>(i, es). group_ok es) ts_parse_actions_21"
  unfolding ts_parse_actions_21_def
  by (simp add: group_ok_simps entry_action_ok_simps del: One_nat_def group_ok.simps cong: list_all_weak)

text \<open>Lines 483871 to 484020.\<close>

definition ts_parse_actions_22 :: "(nat \<times> TSParseActionEntry list) list" where
  "ts_parse_actions_22 =
    [(6446, [Entry 1 True, SHIFT 6932]), (6448, [Entry 1 True, SHIFT 4136]),
     (6450, [Entry 1 True, SHIFT 6942]), (6452, [Entry 1 True, SHIFT 4138]),
     (6454, [Entry 1 True, SHIFT 6998]), (6456, [Entry 1 True, SHIFT 7013]),
     (6458, [Entry 1 True, SHIFT 7073]), (6460, [Entry 1 True, SHIFT 4213]),
     (6462, [Entry 1 True, SHIFT 5499]), (6464, [Entry 1 True, SHIFT 5503]),
     (6466, [Entry 1 True, SHIFT 5506]), (6468, [Entry 1 True, SHIFT 5508]),
     (6470, [Entry 1 True, SHIFT 5510]), (6472, [Entry 1 True, SHIFT 5516]),
     (6474, [Entry 1 True, SHIFT 5519]), (6476, [Entry 1 True, SHIFT 5521]),
     (6478, [Entry 1 True, SHIFT 5523]), (6480, [Entry 1 True, SHIFT 5528]),
     (6482, [Entry 1 True, SHIFT 5530]), (6484, [Entry 1 True, SHIFT 5532]),
     (6486, [Entry 1 True, SHIFT 5535]), (6488, [Entry 1 True, SHIFT 5539]),
     (6490, [Entry 1 True, SHIFT 5542]), (6492, [Entry 1 True, SHIFT 5546]),
     (6494, [Entry 1 True, SHIFT 5552]), (6496, [Entry 1 True, SHIFT 5557]),
     (6498, [Entry 1 True, SHIFT 5561]), (6500, [Entry 1 True, SHIFT 5564]),
     (6502, [Entry 1 True, SHIFT 5566]), (6504, [Entry 1 True, SHIFT 5568]),
     (6506, [Entry 1 True, SHIFT 4220]), (6508, [Entry 1 True, SHIFT 4230]),
     (6510, [Entry 1 True, SHIFT 4260]), (6512, [Entry 1 True, SHIFT 4274]),
     (6514, [Entry 1 True, SHIFT 4309]), (6516, [Entry 1 True, SHIFT 4348]),
     (6518, [Entry 1 True, SHIFT 4352]), (6520, [Entry 1 True, SHIFT 4375]),
     (6522, [Entry 1 True, SHIFT 4445]), (6524, [Entry 1 True, SHIFT 4515]),
     (6526, [Entry 1 True, SHIFT 4521]), (6528, [Entry 1 True, SHIFT 6010]),
     (6530, [Entry 1 True, SHIFT 6015]), (6532, [Entry 1 True, SHIFT 6019]),
     (6534, [Entry 1 True, SHIFT 6022]), (6536, [Entry 1 True, SHIFT 6024]),
     (6538, [Entry 1 True, SHIFT 6026]), (6540, [Entry 1 True, SHIFT 6035]),
     (6542, [Entry 1 True, SHIFT 3941]), (6544, [Entry 1 True, SHIFT 3948]),
     (6546, [Entry 1 True, SHIFT 3970]), (6548, [Entry 1 True, SHIFT 3995]),
     (6550, [Entry 1 True, SHIFT 4021]), (6552, [Entry 1 True, SHIFT 4036]),
     (6554, [Entry 1 True, SHIFT 4067]), (6556, [Entry 1 True, SHIFT 4077]),
     (6558, [Entry 1 True, SHIFT 4080]), (6560, [Entry 1 True, SHIFT 4105]),
     (6562, [Entry 1 True, SHIFT 4116]), (6564, [Entry 1 True, SHIFT 4130]),
     (6566, [Entry 1 True, SHIFT 4166]), (6568, [Entry 1 True, SHIFT 4217]),
     (6570, [Entry 1 True, SHIFT 4248]), (6572, [Entry 1 True, SHIFT 4307]),
     (6574, [Entry 1 True, SHIFT 4312]), (6576, [Entry 1 True, SHIFT 4332]),
     (6578, [Entry 1 True, SHIFT 4400]), (6580, [Entry 1 True, SHIFT 4404]),
     (6582, [Entry 1 True, SHIFT 4464]), (6584, [Entry 1 True, SHIFT 4582]),
     (6586, [Entry 1 True, SHIFT 4721]), (6588, [Entry 1 True, SHIFT 4751]),
     (6590, [Entry 1 True, SHIFT 4782]), (6592, [Entry 1 True, SHIFT 4807]),
     (6594, [Entry 1 True, SHIFT 4814]), (6596, [Entry 1 True, SHIFT 4838]),
     (6598, [Entry 1 True, SHIFT 6295]), (6600, [Entry 1 True, SHIFT 4866]),
     (6602, [Entry 1 True, SHIFT 4880]), (6604, [Entry 1 True, SHIFT 4960]),
     (6606, [Entry 1 True, SHIFT 4994]), (6608, [Entry 1 True, SHIFT 5017]),
     (6610, [Entry 1 True, SHIFT 5040]), (6612, [Entry 1 True, SHIFT 5134]),
     (6614, [Entry 1 True, SHIFT 5187]), (6616, [Entry 1 True, SHIFT 5213]),
     (6618, [Entry 1 True, SHIFT 5531]), (6620, [Entry 1 True, SHIFT 5537]),
     (6622, [Entry 1 True, SHIFT 5567]), (6624, [Entry 1 True, SHIFT 5613]),
     (6626, [Entry 1 True, SHIFT 5625]), (6628, [Entry 1 True, SHIFT 5671]),
     (6630, [Entry 1 True, SHIFT 5696]), (6632, [Entry 1 True, SHIFT 5725]),
     (6634, [Entry 1 True, SHIFT 5821]), (6636, [Entry 1 True, SHIFT 5859]),
     (6638, [Entry 1 True, SHIFT 5934]), (6640, [Entry 1 True, SHIFT 5952]),
     (6642, [Entry 1 True, SHIFT 6098]), (6644, [Entry 1 True, SHIFT 6121]),
     (6646, [Entry 1 True, SHIFT 6135]), (6648, [Entry 1 True, SHIFT 6441]),
     (6650, [Entry 1 True, SHIFT 6472]), (6652, [Entry 1 True, SHIFT 6486]),
     (6654, [Entry 1 True, SHIFT 6490]), (6656, [Entry 1 True, SHIFT 6495]),
     (6658, [Entry 1 True, SHIFT 6498]),
     (6660, [Entry 2 True, REDUCE sym_any_invocation_kind 1 0 0, SHIFT 7467]),
     (6663, [Entry 1 True, SHIFT 3880]),
     (6665, [Entry 1 False, REDUCE aux_sym_interface_name_list_repeat1 2 0 0]),
     (6667, [Entry 2 True, REDUCE aux_sym_interface_name_list_repeat1 2 0 0, SHIFT_REPEAT 7819]),
     (6670, [Entry 1 True, REDUCE aux_sym_interface_name_list_repeat1 2 0 0]),
     (6672, [Entry 1 False, REDUCE aux_sym_fb_decl_repeat1 2 0 0]),
     (6674, [Entry 2 False, REDUCE aux_sym_fb_decl_repeat1 2 0 0, SHIFT_REPEAT 7833]),
     (6677, [Entry 1 True, REDUCE aux_sym_fb_decl_repeat1 2 0 0]),
     (6679, [Entry 1 False, REDUCE sym_interface_name_list 2 0 0]),
     (6681, [Entry 1 True, SHIFT 7819]),
     (6683, [Entry 1 True, REDUCE sym_interface_name_list 2 0 0]), (6685, [Entry 1 True, SHIFT 20]),
     (6687, [Entry 1 False, REDUCE sym_global_var_decls 2 0 0]),
     (6689, [Entry 1 True, REDUCE sym_global_var_decls 2 0 0]), (6691, [Entry 1 True, SHIFT 2952]),
     (6693, [Entry 1 False, REDUCE sym_ERR_var_global_not_allowed 1 0 0]),
     (6695, [Entry 1 True, REDUCE sym_ERR_var_global_not_allowed 1 0 0]),
     (6697, [Entry 1 False, REDUCE sym_namespace_h_name 1 0 0]),
     (6699, [Entry 1 True, REDUCE sym_namespace_h_name 1 0 0]), (6701, [Entry 1 True, SHIFT 10014]),
     (6703, [Entry 1 False, REDUCE sym_namespace_h_name 2 0 0]),
     (6705, [Entry 1 True, REDUCE sym_namespace_h_name 2 0 0]),
     (6707, [Entry 1 False, REDUCE aux_sym_namespace_h_name_repeat1 2 0 0]),
     (6709, [Entry 1 True, REDUCE aux_sym_namespace_h_name_repeat1 2 0 0]),
     (6711, [Entry 2 True, REDUCE aux_sym_namespace_h_name_repeat1 2 0 0, SHIFT_REPEAT 10014]),
     (6714, [Entry 1 False, REDUCE sym_global_var_decls 5 0 53]),
     (6716, [Entry 1 True, REDUCE sym_global_var_decls 5 0 53]),
     (6718, [Entry 1 False, REDUCE sym_global_var_decls 3 0 0]),
     (6720, [Entry 1 True, REDUCE sym_global_var_decls 3 0 0]),
     (6722, [Entry 1 False, REDUCE sym_global_var_decls 3 0 53]),
     (6724, [Entry 1 True, REDUCE sym_global_var_decls 3 0 53]), (6726, [Entry 1 True, SHIFT 2954]),
     (6728, [Entry 1 False, REDUCE sym_global_var_decls 4 0 53]),
     (6730, [Entry 1 True, REDUCE sym_global_var_decls 4 0 53]), (6732, [Entry 1 True, SHIFT 2951]),
     (6734, [Entry 1 False, REDUCE sym_global_var_decls 4 0 0]),
     (6736, [Entry 1 True, REDUCE sym_global_var_decls 4 0 0]), (6738, [Entry 1 True, SHIFT 2956]),
     (6740, [Entry 1 False, REDUCE sym_interface_name_list 1 0 0]),
     (6742, [Entry 1 True, REDUCE sym_interface_name_list 1 0 0]),
     (6744, [Entry 1 False, REDUCE sym_ERR_extends_multiple_times 2 0 0]),
     (6746, [Entry 1 True, REDUCE sym_ERR_extends_multiple_times 2 0 0]),
     (6748, [Entry 1 False, REDUCE sym_using_directive 2 0 0])]"

lemma ts_parse_actions_22_tiled: "tiled_from 6446 ts_parse_actions_22 \<and> after_runs 6446 ts_parse_actions_22 = 6750"
  unfolding ts_parse_actions_22_def by (simp cong: runs_weak)

lemma ts_parse_actions_22_ok: "list_all (\<lambda>(i, es). group_ok es) ts_parse_actions_22"
  unfolding ts_parse_actions_22_def
  by (simp add: group_ok_simps entry_action_ok_simps del: One_nat_def group_ok.simps cong: list_all_weak)

text \<open>Lines 484021 to 484170.\<close>

definition ts_parse_actions_23 :: "(nat \<times> TSParseActionEntry list) list" where
  "ts_parse_actions_23 =
    [(6750, [Entry 1 True, SHIFT 8121]), (6752, [Entry 1 True, REDUCE sym_using_directive 2 0 0]),
     (6754, [Entry 1 True, SHIFT 3033]), (6756, [Entry 1 False, REDUCE sym_using_directive 3 0 0]),
     (6758, [Entry 1 True, REDUCE sym_using_directive 3 0 0]), (6760, [Entry 1 True, SHIFT 3034]),
     (6762, [Entry 1 False, REDUCE aux_sym_using_directive_repeat1 2 0 0]),
     (6764, [Entry 2 True, REDUCE aux_sym_using_directive_repeat1 2 0 0, SHIFT_REPEAT 8121]),
     (6767, [Entry 1 True, REDUCE aux_sym_using_directive_repeat1 2 0 0]),
     (6769, [Entry 1 False, REDUCE aux_sym_fb_decl_repeat2 2 0 0]),
     (6771, [Entry 2 False, REDUCE aux_sym_fb_decl_repeat2 2 0 0, SHIFT_REPEAT 7752]),
     (6774, [Entry 1 True, REDUCE aux_sym_fb_decl_repeat2 2 0 0]),
     (6776, [Entry 1 False, REDUCE aux_sym_func_decl_repeat2 2 0 0]),
     (6778, [Entry 1 True, REDUCE aux_sym_func_decl_repeat2 2 0 0]),
     (6780, [Entry 2 False, REDUCE aux_sym_func_decl_repeat2 2 0 0, SHIFT_REPEAT 8119]),
     (6783, [Entry 1 False, REDUCE sym_var_decls 4 0 49]),
     (6785, [Entry 1 True, REDUCE sym_var_decls 4 0 49]),
     (6787, [Entry 1 False, REDUCE sym_ERR_implements_multiple_times 2 0 0]),
     (6789, [Entry 1 True, REDUCE sym_ERR_implements_multiple_times 2 0 0]),
     (6791, [Entry 1 False, REDUCE sym_using_directive 4 0 0]),
     (6793, [Entry 1 True, REDUCE sym_using_directive 4 0 0]),
     (6795, [Entry 1 False, REDUCE sym_in_out_decls 5 0 46]),
     (6797, [Entry 1 True, REDUCE sym_in_out_decls 5 0 46]),
     (6799, [Entry 1 False, REDUCE sym_var_decls 5 0 111]),
     (6801, [Entry 1 True, REDUCE sym_var_decls 5 0 111]), (6803, [Entry 1 True, SHIFT 3077]),
     (6805, [Entry 1 False, REDUCE sym_var_decls 5 0 49]),
     (6807, [Entry 1 True, REDUCE sym_var_decls 5 0 49]),
     (6809, [Entry 1 False, REDUCE sym_var_decls 5 0 51]),
     (6811, [Entry 1 True, REDUCE sym_var_decls 5 0 51]),
     (6813, [Entry 1 False, REDUCE sym_external_var_decls 5 0 49]),
     (6815, [Entry 1 True, REDUCE sym_external_var_decls 5 0 49]),
     (6817, [Entry 1 False, REDUCE sym_in_out_decls 3 0 46]),
     (6819, [Entry 1 True, REDUCE sym_in_out_decls 3 0 46]), (6821, [Entry 1 True, SHIFT 3055]),
     (6823, [Entry 1 False, REDUCE sym_in_out_decls 3 0 0]),
     (6825, [Entry 1 True, REDUCE sym_in_out_decls 3 0 0]),
     (6827, [Entry 1 False, REDUCE sym_ERR_var_access_not_allowed 1 0 0]),
     (6829, [Entry 1 True, REDUCE sym_ERR_var_access_not_allowed 1 0 0]),
     (6831, [Entry 1 True, SHIFT 3057]), (6833, [Entry 1 False, REDUCE sym_var_decls 3 0 49]),
     (6835, [Entry 1 True, REDUCE sym_var_decls 3 0 49]), (6837, [Entry 1 True, SHIFT 3031]),
     (6839, [Entry 1 False, REDUCE sym_var_decls 3 0 0]),
     (6841, [Entry 1 True, REDUCE sym_var_decls 3 0 0]),
     (6843, [Entry 1 False, REDUCE sym_ERR_var_config_not_allowed 1 0 0]),
     (6845, [Entry 1 True, REDUCE sym_ERR_var_config_not_allowed 1 0 0]),
     (6847, [Entry 1 False, REDUCE sym_var_decls 3 0 51]),
     (6849, [Entry 1 True, REDUCE sym_var_decls 3 0 51]), (6851, [Entry 1 True, SHIFT 3060]),
     (6853, [Entry 1 True, SHIFT 3062]), (6855, [Entry 1 False, REDUCE sym_temp_var_decls 3 0 0]),
     (6857, [Entry 1 True, REDUCE sym_temp_var_decls 3 0 0]), (6859, [Entry 1 True, SHIFT 3063]),
     (6861, [Entry 1 False, REDUCE sym_external_var_decls 3 0 49]),
     (6863, [Entry 1 True, REDUCE sym_external_var_decls 3 0 49]),
     (6865, [Entry 1 True, SHIFT 3064]),
     (6867, [Entry 1 False, REDUCE sym_external_var_decls 3 0 0]),
     (6869, [Entry 1 True, REDUCE sym_external_var_decls 3 0 0]),
     (6871, [Entry 1 True, SHIFT 3066]), (6873, [Entry 1 False, REDUCE sym_in_out_decls 4 0 46]),
     (6875, [Entry 1 True, REDUCE sym_in_out_decls 4 0 46]), (6877, [Entry 1 True, SHIFT 3035]),
     (6879, [Entry 1 False, REDUCE sym_in_out_decls 4 0 0]),
     (6881, [Entry 1 True, REDUCE sym_in_out_decls 4 0 0]),
     (6883, [Entry 1 False, REDUCE sym_var_decls 4 0 111]),
     (6885, [Entry 1 True, REDUCE sym_var_decls 4 0 111]), (6887, [Entry 1 True, SHIFT 3036]),
     (6889, [Entry 1 True, SHIFT 3038]), (6891, [Entry 1 False, REDUCE sym_var_decls 4 0 51]),
     (6893, [Entry 1 True, REDUCE sym_var_decls 4 0 51]), (6895, [Entry 1 True, SHIFT 3039]),
     (6897, [Entry 1 False, REDUCE sym_var_decls 4 0 0]),
     (6899, [Entry 1 True, REDUCE sym_var_decls 4 0 0]),
     (6901, [Entry 1 False, REDUCE sym_temp_var_decls 4 0 0]),
     (6903, [Entry 1 True, REDUCE sym_temp_var_decls 4 0 0]),
     (6905, [Entry 1 False, REDUCE sym_external_var_decls 4 0 49]),
     (6907, [Entry 1 True, REDUCE sym_external_var_decls 4 0 49]),
     (6909, [Entry 1 True, SHIFT 3040]),
     (6911, [Entry 1 False, REDUCE sym_external_var_decls 4 0 0]),
     (6913, [Entry 1 True, REDUCE sym_external_var_decls 4 0 0]),
     (6915, [Entry 1 False, REDUCE sym_prog_access_decls 3 0 0]),
     (6917, [Entry 1 True, REDUCE sym_prog_access_decls 3 0 0]),
     (6919, [Entry 1 False, REDUCE sym_config_init 3 0 0]),
     (6921, [Entry 1 True, REDUCE sym_config_init 3 0 0]), (6923, [Entry 1 True, SHIFT 3070]),
     (6925, [Entry 1 False, REDUCE sym_config_init 4 0 0]),
     (6927, [Entry 1 True, REDUCE sym_config_init 4 0 0]),
     (6929, [Entry 1 False, REDUCE sym_in_out_decls 2 0 0]),
     (6931, [Entry 1 True, REDUCE sym_in_out_decls 2 0 0]), (6933, [Entry 1 True, SHIFT 3042]),
     (6935, [Entry 1 False, REDUCE sym_var_decls 2 0 0]),
     (6937, [Entry 1 True, REDUCE sym_var_decls 2 0 0]), (6939, [Entry 1 True, SHIFT 3046]),
     (6941, [Entry 1 False, REDUCE sym_temp_var_decls 2 0 0]),
     (6943, [Entry 1 True, REDUCE sym_temp_var_decls 2 0 0]), (6945, [Entry 1 True, SHIFT 3050]),
     (6947, [Entry 1 False, REDUCE sym_external_var_decls 2 0 0]),
     (6949, [Entry 1 True, REDUCE sym_external_var_decls 2 0 0]),
     (6951, [Entry 1 True, SHIFT 3053]),
     (6953, [Entry 1 False, REDUCE sym_prog_access_decls 2 0 0]),
     (6955, [Entry 1 True, REDUCE sym_prog_access_decls 2 0 0]),
     (6957, [Entry 1 False, REDUCE sym_config_init 2 0 0]),
     (6959, [Entry 1 True, REDUCE sym_config_init 2 0 0]), (6961, [Entry 1 True, SHIFT 3068]),
     (6963, [Entry 1 False, REDUCE sym_var_decls 6 0 111]),
     (6965, [Entry 1 True, REDUCE sym_var_decls 6 0 111]), (6967, [Entry 1 True, SHIFT 3906]),
     (6969, [Entry 1 True, SHIFT 4028]), (6971, [Entry 1 True, SHIFT 4355]),
     (6973, [Entry 1 True, SHIFT 5857]), (6975, [Entry 1 False, REDUCE sym_output_decls 4 0 0]),
     (6977, [Entry 1 True, REDUCE sym_output_decls 4 0 0]),
     (6979, [Entry 1 False, REDUCE sym_retain_var_decls 5 0 46]),
     (6981, [Entry 1 True, REDUCE sym_retain_var_decls 5 0 46]),
     (6983, [Entry 1 False, REDUCE sym_fb_input_decls 4 0 0]),
     (6985, [Entry 1 True, REDUCE sym_fb_input_decls 4 0 0]),
     (6987, [Entry 1 False, REDUCE sym_input_decls 5 0 46]),
     (6989, [Entry 1 True, REDUCE sym_input_decls 5 0 46]),
     (6991, [Entry 1 False, REDUCE sym_output_decls 5 0 46]),
     (6993, [Entry 1 True, REDUCE sym_output_decls 5 0 46]),
     (6995, [Entry 1 False, REDUCE sym_fb_output_decls 4 0 46]),
     (6997, [Entry 1 True, REDUCE sym_fb_output_decls 4 0 46]), (6999, [Entry 1 True, SHIFT 3163]),
     (7001, [Entry 1 False, REDUCE sym_fb_output_decls 4 0 0]),
     (7003, [Entry 1 True, REDUCE sym_fb_output_decls 4 0 0]),
     (7005, [Entry 1 False, REDUCE sym_retain_var_decls 4 0 46]),
     (7007, [Entry 1 True, REDUCE sym_retain_var_decls 4 0 46]),
     (7009, [Entry 1 False, REDUCE sym_retain_var_decls 4 0 173]),
     (7011, [Entry 1 True, REDUCE sym_retain_var_decls 4 0 173]),
     (7013, [Entry 1 True, SHIFT 3164]),
     (7015, [Entry 1 False, REDUCE sym_retain_var_decls 6 0 173]),
     (7017, [Entry 1 True, REDUCE sym_retain_var_decls 6 0 173]),
     (7019, [Entry 1 False, REDUCE sym_no_retain_var_decls 6 0 174]),
     (7021, [Entry 1 True, REDUCE sym_no_retain_var_decls 6 0 174]),
     (7023, [Entry 1 False, REDUCE sym_input_decls 3 0 46]),
     (7025, [Entry 1 True, REDUCE sym_input_decls 3 0 46]), (7027, [Entry 1 True, SHIFT 3126]),
     (7029, [Entry 1 False, REDUCE sym_input_decls 3 0 0]),
     (7031, [Entry 1 True, REDUCE sym_input_decls 3 0 0]), (7033, [Entry 1 True, SHIFT 3128]),
     (7035, [Entry 1 False, REDUCE sym_output_decls 3 0 46]),
     (7037, [Entry 1 True, REDUCE sym_output_decls 3 0 46]), (7039, [Entry 1 True, SHIFT 3129]),
     (7041, [Entry 1 False, REDUCE sym_output_decls 3 0 0]),
     (7043, [Entry 1 True, REDUCE sym_output_decls 3 0 0]), (7045, [Entry 1 True, SHIFT 3082]),
     (7047, [Entry 1 True, SHIFT 3083]),
     (7049, [Entry 1 False, REDUCE sym_loc_partly_var_decl 4 0 46]),
     (7051, [Entry 1 True, REDUCE sym_loc_partly_var_decl 4 0 46])]"

lemma ts_parse_actions_23_tiled: "tiled_from 6750 ts_parse_actions_23 \<and> after_runs 6750 ts_parse_actions_23 = 7053"
  unfolding ts_parse_actions_23_def by (simp cong: runs_weak)

lemma ts_parse_actions_23_ok: "list_all (\<lambda>(i, es). group_ok es) ts_parse_actions_23"
  unfolding ts_parse_actions_23_def
  by (simp add: group_ok_simps entry_action_ok_simps del: One_nat_def group_ok.simps cong: list_all_weak)

text \<open>Lines 484171 to 484320.\<close>

definition ts_parse_actions_24 :: "(nat \<times> TSParseActionEntry list) list" where
  "ts_parse_actions_24 =
    [(7053, [Entry 1 True, SHIFT 3134]),
     (7055, [Entry 1 False, REDUCE sym_no_retain_var_decls 4 0 46]),
     (7057, [Entry 1 True, REDUCE sym_no_retain_var_decls 4 0 46]),
     (7059, [Entry 1 False, REDUCE sym_input_decls 4 0 46]),
     (7061, [Entry 1 True, REDUCE sym_input_decls 4 0 46]), (7063, [Entry 1 True, SHIFT 3090]),
     (7065, [Entry 1 False, REDUCE sym_input_decls 4 0 0]),
     (7067, [Entry 1 True, REDUCE sym_input_decls 4 0 0]),
     (7069, [Entry 1 False, REDUCE sym_output_decls 4 0 46]),
     (7071, [Entry 1 True, REDUCE sym_output_decls 4 0 46]), (7073, [Entry 1 True, SHIFT 3091]),
     (7075, [Entry 1 False, REDUCE sym_no_retain_var_decls 5 0 174]),
     (7077, [Entry 1 True, REDUCE sym_no_retain_var_decls 5 0 174]),
     (7079, [Entry 1 False, REDUCE sym_no_retain_var_decls 4 0 174]),
     (7081, [Entry 1 True, REDUCE sym_no_retain_var_decls 4 0 174]),
     (7083, [Entry 1 True, SHIFT 3131]), (7085, [Entry 1 True, SHIFT 3166]),
     (7087, [Entry 1 False, REDUCE sym_loc_partly_var_decl 5 0 46]),
     (7089, [Entry 1 True, REDUCE sym_loc_partly_var_decl 5 0 46]),
     (7091, [Entry 1 False, REDUCE sym_loc_partly_var_decl 4 0 0]),
     (7093, [Entry 1 True, REDUCE sym_loc_partly_var_decl 4 0 0]),
     (7095, [Entry 1 False, REDUCE sym_fb_output_decls 3 0 46]),
     (7097, [Entry 1 True, REDUCE sym_fb_output_decls 3 0 46]), (7099, [Entry 1 True, SHIFT 3092]),
     (7101, [Entry 1 False, REDUCE sym_fb_output_decls 3 0 0]),
     (7103, [Entry 1 True, REDUCE sym_fb_output_decls 3 0 0]),
     (7105, [Entry 1 False, REDUCE sym_fb_input_decls 4 0 46]),
     (7107, [Entry 1 True, REDUCE sym_fb_input_decls 4 0 46]), (7109, [Entry 1 True, SHIFT 3094]),
     (7111, [Entry 1 False, REDUCE sym_retain_var_decls 3 0 46]),
     (7113, [Entry 1 True, REDUCE sym_retain_var_decls 3 0 46]), (7115, [Entry 1 True, SHIFT 3095]),
     (7117, [Entry 1 False, REDUCE sym_input_decls 2 0 0]),
     (7119, [Entry 1 True, REDUCE sym_input_decls 2 0 0]), (7121, [Entry 1 True, SHIFT 3101]),
     (7123, [Entry 1 False, REDUCE sym_output_decls 2 0 0]),
     (7125, [Entry 1 True, REDUCE sym_output_decls 2 0 0]), (7127, [Entry 1 True, SHIFT 3105]),
     (7129, [Entry 1 False, REDUCE sym_no_retain_var_decls 3 0 46]),
     (7131, [Entry 1 True, REDUCE sym_no_retain_var_decls 3 0 46]),
     (7133, [Entry 1 True, SHIFT 3112]), (7135, [Entry 1 False, REDUCE sym_fb_input_decls 2 0 0]),
     (7137, [Entry 1 True, REDUCE sym_fb_input_decls 2 0 0]), (7139, [Entry 1 True, SHIFT 3178]),
     (7141, [Entry 1 False, REDUCE sym_fb_output_decls 2 0 0]),
     (7143, [Entry 1 True, REDUCE sym_fb_output_decls 2 0 0]), (7145, [Entry 1 True, SHIFT 3137]),
     (7147, [Entry 1 False, REDUCE sym_loc_partly_var_decl 3 0 0]),
     (7149, [Entry 1 True, REDUCE sym_loc_partly_var_decl 3 0 0]),
     (7151, [Entry 1 True, SHIFT 3135]), (7153, [Entry 1 False, REDUCE sym__fb_variables 1 0 0]),
     (7155, [Entry 1 True, REDUCE sym__fb_variables 1 0 0]), (7157, [Entry 1 True, SHIFT 3162]),
     (7159, [Entry 1 False, REDUCE sym_fb_input_decls 5 0 46]),
     (7161, [Entry 1 True, REDUCE sym_fb_input_decls 5 0 46]),
     (7163, [Entry 1 False, REDUCE sym_fb_output_decls 5 0 46]),
     (7165, [Entry 1 True, REDUCE sym_fb_output_decls 5 0 46]),
     (7167, [Entry 1 False, REDUCE sym_retain_var_decls 5 0 173]),
     (7169, [Entry 1 True, REDUCE sym_retain_var_decls 5 0 173]),
     (7171, [Entry 1 True, SHIFT 3098]),
     (7173, [Entry 1 False, REDUCE sym_no_retain_var_decls 5 0 46]),
     (7175, [Entry 1 True, REDUCE sym_no_retain_var_decls 5 0 46]),
     (7177, [Entry 1 False, REDUCE sym_fb_input_decls 3 0 46]),
     (7179, [Entry 1 True, REDUCE sym_fb_input_decls 3 0 46]), (7181, [Entry 1 True, SHIFT 3145]),
     (7183, [Entry 1 False, REDUCE sym_fb_input_decls 3 0 0]),
     (7185, [Entry 1 True, REDUCE sym_fb_input_decls 3 0 0]), (7187, [Entry 1 True, SHIFT 3097]),
     (7189, [Entry 1 True, SHIFT 3086]), (7191, [Entry 1 True, SHIFT 3249]),
     (7193, [Entry 1 True, SHIFT 3182]), (7195, [Entry 1 True, SHIFT 3188]),
     (7197, [Entry 1 True, SHIFT 3192]), (7199, [Entry 1 True, SHIFT 3193]),
     (7201, [Entry 1 True, SHIFT 3195]), (7203, [Entry 1 True, SHIFT 3225]),
     (7205, [Entry 1 True, SHIFT 3185]),
     (7207, [Entry 1 False, REDUCE sym__method_decl_variables 1 0 0]),
     (7209, [Entry 1 True, REDUCE sym__method_decl_variables 1 0 0]),
     (7211, [Entry 1 True, SHIFT 3206]), (7213, [Entry 1 True, SHIFT 3209]),
     (7215, [Entry 1 True, SHIFT 3212]), (7217, [Entry 1 True, SHIFT 3215]),
     (7219, [Entry 1 True, SHIFT 3218]), (7221, [Entry 1 True, SHIFT 3224]),
     (7223, [Entry 1 True, SHIFT 3267]), (7225, [Entry 1 True, SHIFT 3227]),
     (7227, [Entry 1 True, SHIFT 3230]), (7229, [Entry 1 True, SHIFT 3232]),
     (7231, [Entry 1 True, SHIFT 3233]), (7233, [Entry 1 True, SHIFT 3234]),
     (7235, [Entry 1 True, SHIFT 3236]), (7237, [Entry 1 True, SHIFT 3237]),
     (7239, [Entry 1 True, SHIFT 3239]), (7241, [Entry 1 True, SHIFT 3240]),
     (7243, [Entry 1 True, SHIFT 3244]), (7245, [Entry 1 True, SHIFT 3247]),
     (7247, [Entry 1 True, SHIFT 3190]), (7249, [Entry 1 True, SHIFT 3250]),
     (7251, [Entry 1 True, SHIFT 3252]), (7253, [Entry 1 True, SHIFT 3253]),
     (7255, [Entry 1 True, SHIFT 3254]), (7257, [Entry 1 True, SHIFT 3255]),
     (7259, [Entry 1 True, SHIFT 3256]), (7261, [Entry 1 True, SHIFT 3258]),
     (7263, [Entry 1 True, SHIFT 3259]), (7265, [Entry 1 True, SHIFT 3260]),
     (7267, [Entry 1 True, SHIFT 3262]), (7269, [Entry 1 False, REDUCE sym__func_variables 1 0 0]),
     (7271, [Entry 1 True, REDUCE sym__func_variables 1 0 0]), (7273, [Entry 1 True, SHIFT 3263]),
     (7275, [Entry 1 True, SHIFT 3264]), (7277, [Entry 1 True, SHIFT 3265]),
     (7279, [Entry 1 False, REDUCE sym_constant_expr 1 0 0]),
     (7281, [Entry 1 True, REDUCE sym_constant_expr 1 0 0]),
     (7283, [Entry 1 True, REDUCE sym_source_file 1 0 0]),
     (7285, [Entry 1 True, REDUCE sym_namespace_elements 1 0 0]),
     (7287, [Entry 1 True, REDUCE aux_sym_source_file_repeat1 2 0 0]),
     (7289, [Entry 2 False, REDUCE aux_sym_source_file_repeat1 2 0 0, SHIFT_REPEAT 7776]),
     (7292, [Entry 2 True, REDUCE aux_sym_source_file_repeat1 2 0 0, SHIFT_REPEAT 7502]),
     (7295, [Entry 2 True, REDUCE aux_sym_source_file_repeat1 2 0 0, SHIFT_REPEAT 7531]),
     (7298, [Entry 2 True, REDUCE aux_sym_source_file_repeat1 2 0 0, SHIFT_REPEAT 7522]),
     (7301, [Entry 2 True, REDUCE aux_sym_source_file_repeat1 2 0 0, SHIFT_REPEAT 7533]),
     (7304, [Entry 2 True, REDUCE aux_sym_source_file_repeat1 2 0 0, SHIFT_REPEAT 7873]),
     (7307, [Entry 2 False, REDUCE aux_sym_source_file_repeat1 2 0 0, SHIFT_REPEAT 7661]),
     (7310, [Entry 2 True, REDUCE aux_sym_source_file_repeat1 2 0 0, SHIFT_REPEAT 8052]),
     (7313, [Entry 2 True, REDUCE aux_sym_source_file_repeat1 2 0 0, SHIFT_REPEAT 7999]),
     (7316, [Entry 2 True, REDUCE aux_sym_source_file_repeat1 2 0 0, SHIFT_REPEAT 10271]),
     (7319, [Entry 2 True, REDUCE aux_sym_source_file_repeat1 2 0 0, SHIFT_REPEAT 8389]),
     (7322, [Entry 2 True, REDUCE aux_sym_source_file_repeat1 2 0 0, SHIFT_REPEAT 8413]),
     (7325, [Entry 2 True, REDUCE aux_sym_source_file_repeat1 2 0 0, SHIFT_REPEAT 7934]),
     (7328, [Entry 2 True, REDUCE aux_sym_source_file_repeat1 2 0 0, SHIFT_REPEAT 8104]),
     (7331, [Entry 2 False, REDUCE aux_sym_namespace_elements_repeat1 2 0 0, SHIFT_REPEAT 7776]),
     (7334, [Entry 2 True, REDUCE aux_sym_namespace_elements_repeat1 2 0 0, SHIFT_REPEAT 7502]),
     (7337, [Entry 2 True, REDUCE aux_sym_namespace_elements_repeat1 2 0 0, SHIFT_REPEAT 7531]),
     (7340, [Entry 2 True, REDUCE aux_sym_namespace_elements_repeat1 2 0 0, SHIFT_REPEAT 7522]),
     (7343, [Entry 2 True, REDUCE aux_sym_namespace_elements_repeat1 2 0 0, SHIFT_REPEAT 7533]),
     (7346, [Entry 2 True, REDUCE aux_sym_namespace_elements_repeat1 2 0 0, SHIFT_REPEAT 7873]),
     (7349, [Entry 2 False, REDUCE aux_sym_namespace_elements_repeat1 2 0 0, SHIFT_REPEAT 7661]),
     (7352, [Entry 2 True, REDUCE aux_sym_namespace_elements_repeat1 2 0 0, SHIFT_REPEAT 8052]),
     (7355, [Entry 2 True, REDUCE aux_sym_namespace_elements_repeat1 2 0 0, SHIFT_REPEAT 7999]),
     (7358, [Entry 2 True, REDUCE aux_sym_namespace_elements_repeat1 2 0 0, SHIFT_REPEAT 10271]),
     (7361, [Entry 2 True, REDUCE aux_sym_namespace_elements_repeat1 2 0 0, SHIFT_REPEAT 8389]),
     (7364, [Entry 2 True, REDUCE aux_sym_namespace_elements_repeat1 2 0 0, SHIFT_REPEAT 8413]),
     (7367, [Entry 2 True, REDUCE aux_sym_namespace_elements_repeat1 2 0 0, SHIFT_REPEAT 7934]),
     (7370, [Entry 1 True, REDUCE aux_sym_namespace_elements_repeat1 2 0 0]),
     (7372, [Entry 1 False, REDUCE aux_sym_ERR_class_variables_after_method_repeat1 2 0 0]),
     (7374, [Entry 1 True, REDUCE aux_sym_ERR_class_variables_after_method_repeat1 2 0 0]),
     (7376, [Entry 2 True, REDUCE aux_sym_ERR_class_variables_after_method_repeat1 2 0 0, SHIFT_REPEAT 7506]),
     (7379, [Entry 2 False, REDUCE aux_sym_ERR_class_variables_after_method_repeat1 2 0 0, SHIFT_REPEAT 3307])]"

lemma ts_parse_actions_24_tiled: "tiled_from 7053 ts_parse_actions_24 \<and> after_runs 7053 ts_parse_actions_24 = 7382"
  unfolding ts_parse_actions_24_def by (simp cong: runs_weak)

lemma ts_parse_actions_24_ok: "list_all (\<lambda>(i, es). group_ok es) ts_parse_actions_24"
  unfolding ts_parse_actions_24_def
  by (simp add: group_ok_simps entry_action_ok_simps del: One_nat_def group_ok.simps cong: list_all_weak)

text \<open>Lines 484321 to 484470.\<close>

definition ts_parse_actions_25 :: "(nat \<times> TSParseActionEntry list) list" where
  "ts_parse_actions_25 =
    [(7382, [Entry 2 True, REDUCE aux_sym_ERR_class_variables_after_method_repeat1 2 0 0, SHIFT_REPEAT 7673]),
     (7385, [Entry 2 True, REDUCE aux_sym_ERR_class_variables_after_method_repeat1 2 0 0, SHIFT_REPEAT 7674]),
     (7388, [Entry 2 True, REDUCE aux_sym_ERR_class_variables_after_method_repeat1 2 0 0, SHIFT_REPEAT 7575]),
     (7391, [Entry 2 True, REDUCE aux_sym_ERR_class_variables_after_method_repeat1 2 0 0, SHIFT_REPEAT 7872]),
     (7394, [Entry 2 True, REDUCE aux_sym_ERR_class_variables_after_method_repeat1 2 0 0, SHIFT_REPEAT 7361]),
     (7397, [Entry 1 True, SHIFT 9790]),
     (7399, [Entry 2 True, REDUCE aux_sym_namespace_h_name_repeat1 2 0 0, SHIFT_REPEAT 9790]),
     (7402, [Entry 1 True, SHIFT 8107]), (7404, [Entry 1 True, SHIFT 3288]),
     (7406, [Entry 2 True, REDUCE aux_sym_using_directive_repeat1 2 0 0, SHIFT_REPEAT 8107]),
     (7409, [Entry 1 True, SHIFT 3289]),
     (7411, [Entry 2 True, REDUCE aux_sym_config_decl_repeat1 2 0 35, SHIFT_REPEAT 7506]),
     (7414, [Entry 2 False, REDUCE aux_sym_config_decl_repeat1 2 0 35, SHIFT_REPEAT 6978]),
     (7417, [Entry 2 True, REDUCE aux_sym_config_decl_repeat1 2 0 35, SHIFT_REPEAT 7673]),
     (7420, [Entry 2 True, REDUCE aux_sym_config_decl_repeat1 2 0 35, SHIFT_REPEAT 7674]),
     (7423, [Entry 2 True, REDUCE aux_sym_config_decl_repeat1 2 0 35, SHIFT_REPEAT 7575]),
     (7426, [Entry 2 True, REDUCE aux_sym_config_decl_repeat1 2 0 35, SHIFT_REPEAT 7814]),
     (7429, [Entry 2 True, REDUCE aux_sym_config_decl_repeat1 2 0 35, SHIFT_REPEAT 7818]),
     (7432, [Entry 1 True, REDUCE aux_sym_config_decl_repeat1 2 0 35]),
     (7434, [Entry 2 True, REDUCE aux_sym_config_decl_repeat1 2 0 35, SHIFT_REPEAT 9692]),
     (7437, [Entry 2 True, REDUCE aux_sym_config_decl_repeat1 2 0 35, SHIFT_REPEAT 9693]),
     (7440, [Entry 2 True, REDUCE aux_sym_config_decl_repeat1 2 0 35, SHIFT_REPEAT 7361]),
     (7443, [Entry 1 False, REDUCE aux_sym_ref_type_spec_repeat1 2 0 0]),
     (7445, [Entry 2 False, REDUCE aux_sym_ref_type_spec_repeat1 2 0 0, SHIFT_REPEAT 3287]),
     (7448, [Entry 1 False, SHIFT 6978]), (7450, [Entry 1 True, SHIFT 7814]),
     (7452, [Entry 1 True, SHIFT 7818]), (7454, [Entry 1 True, SHIFT 3798]),
     (7456, [Entry 1 True, SHIFT 9692]), (7458, [Entry 1 True, SHIFT 9693]),
     (7460, [Entry 1 True, SHIFT 3458]),
     (7462, [Entry 1 False, REDUCE aux_sym_ref_type_spec_repeat1 1 0 15]),
     (7464, [Entry 1 True, SHIFT 2994]), (7466, [Entry 1 True, SHIFT 7475]),
     (7468, [Entry 1 True, SHIFT 7486]), (7470, [Entry 1 True, SHIFT 7494]),
     (7472, [Entry 1 True, SHIFT 7652]), (7474, [Entry 1 True, SHIFT 7654]),
     (7476, [Entry 1 True, SHIFT 7576]), (7478, [Entry 1 True, SHIFT 8135]),
     (7480, [Entry 1 True, SHIFT 7898]), (7482, [Entry 1 True, SHIFT 7220]),
     (7484, [Entry 1 True, SHIFT 2966]), (7486, [Entry 1 True, SHIFT 8150]),
     (7488, [Entry 1 True, REDUCE sym_ERR_class_variables_after_method 1 0 0]),
     (7490, [Entry 1 True, SHIFT 8086]), (7492, [Entry 1 True, SHIFT 8192]),
     (7494, [Entry 1 True, SHIFT 53]), (7496, [Entry 1 True, SHIFT 54]),
     (7498, [Entry 1 True, SHIFT 8183]), (7500, [Entry 1 True, SHIFT 15]),
     (7502, [Entry 2 True, REDUCE aux_sym_fb_decl_repeat3 2 0 0, SHIFT_REPEAT 7551]),
     (7505, [Entry 1 True, SHIFT 49]), (7507, [Entry 1 True, REDUCE sym_enum_value_spec 1 0 20]),
     (7509, [Entry 1 True, SHIFT 8163]),
     (7511, [Entry 2 True, REDUCE aux_sym_method_prototype_repeat1 2 0 0, SHIFT_REPEAT 7475]),
     (7514, [Entry 2 True, REDUCE aux_sym_method_prototype_repeat1 2 0 0, SHIFT_REPEAT 7486]),
     (7517, [Entry 2 True, REDUCE aux_sym_method_prototype_repeat1 2 0 0, SHIFT_REPEAT 7494]),
     (7520, [Entry 2 True, REDUCE aux_sym_method_prototype_repeat1 2 0 0, SHIFT_REPEAT 7652]),
     (7523, [Entry 2 True, REDUCE aux_sym_method_prototype_repeat1 2 0 0, SHIFT_REPEAT 7654]),
     (7526, [Entry 2 True, REDUCE aux_sym_method_prototype_repeat1 2 0 0, SHIFT_REPEAT 7576]),
     (7529, [Entry 1 True, REDUCE aux_sym_method_prototype_repeat1 2 0 0]),
     (7531, [Entry 2 True, REDUCE aux_sym_method_prototype_repeat1 2 0 0, SHIFT_REPEAT 7898]),
     (7534, [Entry 2 True, REDUCE aux_sym_method_prototype_repeat1 2 0 0, SHIFT_REPEAT 7220]),
     (7537, [Entry 1 True, SHIFT 8187]), (7539, [Entry 1 True, SHIFT 8194]),
     (7541, [Entry 1 True, REDUCE sym__path 1 0 0]), (7543, [Entry 1 False, SHIFT 7566]),
     (7545, [Entry 1 False, SHIFT 3333]), (7547, [Entry 1 False, SHIFT 3334]),
     (7549, [Entry 1 False, SHIFT 3381]), (7551, [Entry 1 False, SHIFT 8153]),
     (7553, [Entry 1 False, SHIFT 3376]), (7555, [Entry 1 False, SHIFT 7680]),
     (7557, [Entry 1 False, SHIFT 7642]), (7559, [Entry 1 False, SHIFT 3331]),
     (7561, [Entry 1 False, SHIFT 3332]), (7563, [Entry 1 False, SHIFT 3391]),
     (7565, [Entry 1 False, SHIFT 3072]), (7567, [Entry 1 False, SHIFT 3329]),
     (7569, [Entry 1 False, SHIFT 3330]), (7571, [Entry 1 False, SHIFT 3400]),
     (7573, [Entry 1 False, SHIFT 3200]), (7575, [Entry 1 True, SHIFT 77]),
     (7577, [Entry 1 True, SHIFT 79]), (7579, [Entry 1 True, SHIFT 2436]),
     (7581, [Entry 1 True, REDUCE sym_ERR_assign_in_condition 3 0 0]),
     (7583, [Entry 1 True, SHIFT 74]), (7585, [Entry 1 True, SHIFT 3113]),
     (7587, [Entry 1 True, REDUCE sym_param_assign_input 1 0 20]),
     (7589, [Entry 1 True, SHIFT 2312]),
     (7591, [Entry 1 True, REDUCE sym_param_assign_input 3 0 265]),
     (7593, [Entry 1 True, REDUCE sym_param_assign_output 3 0 265]),
     (7595, [Entry 2 True, REDUCE sym_constant_expr 1 0 0, SHIFT 2106]),
     (7598, [Entry 1 True, SHIFT 2137]), (7600, [Entry 1 True, SHIFT 2156]),
     (7602, [Entry 1 True, SHIFT 2290]), (7604, [Entry 1 True, SHIFT 2298]),
     (7606, [Entry 1 True, SHIFT 2315]), (7608, [Entry 1 True, SHIFT 9918]),
     (7610, [Entry 1 True, REDUCE sym_transition_cond 2 0 0]), (7612, [Entry 1 True, SHIFT 2307]),
     (7614, [Entry 1 True, REDUCE sym_param_assign_output 4 0 467]),
     (7616, [Entry 1 True, REDUCE sym_enum_value_spec 3 0 20]), (7618, [Entry 1 True, SHIFT 3122]),
     (7620, [Entry 1 True, SHIFT 1154]), (7622, [Entry 1 True, SHIFT 11]),
     (7624, [Entry 1 False, SHIFT 7461]), (7626, [Entry 1 False, SHIFT 7445]),
     (7628, [Entry 1 False, SHIFT 3221]), (7630, [Entry 1 False, SHIFT 7447]),
     (7632, [Entry 1 False, SHIFT 3222]), (7634, [Entry 1 False, SHIFT 3148]),
     (7636, [Entry 1 False, SHIFT 3154]), (7638, [Entry 1 False, SHIFT 7196]),
     (7640, [Entry 1 False, SHIFT 7197]), (7642, [Entry 1 True, SHIFT 14]),
     (7644, [Entry 1 True, SHIFT 1188]), (7646, [Entry 1 True, SHIFT 2106]),
     (7648, [Entry 1 True, SHIFT 2116]), (7650, [Entry 1 True, SHIFT 2108]),
     (7652, [Entry 1 True, SHIFT 2129]), (7654, [Entry 1 True, SHIFT 3084]),
     (7656, [Entry 1 True, SHIFT 55]), (7658, [Entry 1 True, SHIFT 1153]),
     (7660, [Entry 1 True, SHIFT 7]),
     (7662, [Entry 2 True, REDUCE aux_sym_func_decl_repeat2 2 0 0, SHIFT_REPEAT 8104]),
     (7665, [Entry 1 True, SHIFT 3386]), (7667, [Entry 1 True, SHIFT 3410]),
     (7669, [Entry 1 True, SHIFT 3395]), (7671, [Entry 1 True, SHIFT 3406]),
     (7673, [Entry 1 True, SHIFT 3405]), (7675, [Entry 1 True, SHIFT 3387]),
     (7677, [Entry 1 True, SHIFT 3408]),
     (7679, [Entry 1 True, REDUCE sym_ERR_func_call_in_init 1 0 0]),
     (7681, [Entry 1 True, SHIFT 3383]), (7683, [Entry 1 True, SHIFT 3382]),
     (7685, [Entry 1 True, SHIFT 1155]), (7687, [Entry 1 True, SHIFT 1156]),
     (7689, [Entry 1 True, SHIFT 1157]), (7691, [Entry 1 True, SHIFT 84]),
     (7693, [Entry 1 True, SHIFT 1158]), (7695, [Entry 1 False, SHIFT 1160]),
     (7697, [Entry 1 True, SHIFT 1161]), (7699, [Entry 1 False, SHIFT 1162]),
     (7701, [Entry 1 True, SHIFT 1165]), (7703, [Entry 1 True, SHIFT 1166]),
     (7705, [Entry 1 True, SHIFT 1167]), (7707, [Entry 1 True, SHIFT 1170]),
     (7709, [Entry 1 False, SHIFT 1171])]"

lemma ts_parse_actions_25_tiled: "tiled_from 7382 ts_parse_actions_25 \<and> after_runs 7382 ts_parse_actions_25 = 7711"
  unfolding ts_parse_actions_25_def by (simp cong: runs_weak)

lemma ts_parse_actions_25_ok: "list_all (\<lambda>(i, es). group_ok es) ts_parse_actions_25"
  unfolding ts_parse_actions_25_def
  by (simp add: group_ok_simps entry_action_ok_simps del: One_nat_def group_ok.simps cong: list_all_weak)

end
