(* ===== verification/Action_Table_2.thy ===== *)
theory Action_Table_2
  imports Reduce_Counts
begin

text \<open>
  The groups of \<open>ts_parse_actions\<close> in \<open>src/crates/tree-sitter/src/parser.c\<close> from index 7711 to 15217, each
  with the check that it is one.
\<close>

text \<open>Lines 484471 to 484620.\<close>

definition ts_parse_actions_26 :: "(nat \<times> TSParseActionEntry list) list" where
  "ts_parse_actions_26 =
    [(7711, [Entry 1 False, SHIFT 1172]), (7713, [Entry 1 True, SHIFT 1173]),
     (7715, [Entry 1 True, SHIFT 1174]), (7717, [Entry 1 True, SHIFT 3402]),
     (7719, [Entry 1 True, SHIFT 3409]), (7721, [Entry 1 True, SHIFT 3403]),
     (7723, [Entry 1 True, SHIFT 3389]), (7725, [Entry 1 True, SHIFT 3394]),
     (7727, [Entry 1 True, SHIFT 3392]), (7729, [Entry 1 True, SHIFT 3399]),
     (7731, [Entry 1 True, SHIFT 3378]), (7733, [Entry 1 True, SHIFT 3404]),
     (7735, [Entry 1 True, SHIFT 3380]), (7737, [Entry 1 True, SHIFT 3384]),
     (7739, [Entry 1 True, SHIFT 2078]), (7741, [Entry 1 True, SHIFT 2068]),
     (7743, [Entry 1 True, SHIFT 2094]), (7745, [Entry 1 True, SHIFT 52]),
     (7747, [Entry 1 True, SHIFT 2107]), (7749, [Entry 1 False, SHIFT 2110]),
     (7751, [Entry 1 True, SHIFT 2112]), (7753, [Entry 1 False, SHIFT 2061]),
     (7755, [Entry 1 True, SHIFT 2126]), (7757, [Entry 1 True, SHIFT 2118]),
     (7759, [Entry 1 True, SHIFT 2062]), (7761, [Entry 1 True, SHIFT 2063]),
     (7763, [Entry 1 False, SHIFT 2072]), (7765, [Entry 1 False, SHIFT 2073]),
     (7767, [Entry 1 True, SHIFT 2095]), (7769, [Entry 1 True, SHIFT 2075]),
     (7771, [Entry 1 True, SHIFT 3379]), (7773, [Entry 1 True, SHIFT 3388]),
     (7775, [Entry 1 True, SHIFT 3390]), (7777, [Entry 1 True, SHIFT 3385]),
     (7779, [Entry 1 False, REDUCE sym_ERR_var_temp_not_allowed 1 0 0]),
     (7781, [Entry 1 True, REDUCE sym_ERR_var_temp_not_allowed 1 0 0]),
     (7783, [Entry 1 False, SHIFT 7559]), (7785, [Entry 1 False, SHIFT 7443]),
     (7787, [Entry 1 False, SHIFT 3353]), (7789, [Entry 1 False, SHIFT 3045]),
     (7791, [Entry 2 True, REDUCE aux_sym_fb_decl_repeat1 2 0 0, SHIFT_REPEAT 7858]),
     (7794, [Entry 1 False, REDUCE sym_ERR_var_in_out_not_allowed 1 0 0]),
     (7796, [Entry 1 True, REDUCE sym_ERR_var_in_out_not_allowed 1 0 0]),
     (7798, [Entry 1 True, SHIFT 7891]),
     (7800, [Entry 2 False, REDUCE aux_sym_func_decl_repeat1 2 0 0, SHIFT_REPEAT 7776]),
     (7803, [Entry 2 True, REDUCE aux_sym_func_decl_repeat1 2 0 0, SHIFT_REPEAT 7502]),
     (7806, [Entry 2 True, REDUCE aux_sym_func_decl_repeat1 2 0 0, SHIFT_REPEAT 7531]),
     (7809, [Entry 2 True, REDUCE aux_sym_func_decl_repeat1 2 0 0, SHIFT_REPEAT 7522]),
     (7812, [Entry 2 True, REDUCE aux_sym_func_decl_repeat1 2 0 0, SHIFT_REPEAT 7533]),
     (7815, [Entry 1 False, REDUCE aux_sym_func_decl_repeat1 2 0 0]),
     (7817, [Entry 1 True, REDUCE aux_sym_func_decl_repeat1 2 0 0]),
     (7819, [Entry 1 False, SHIFT 3208]),
     (7821, [Entry 2 True, REDUCE aux_sym_interface_name_list_repeat1 2 0 0, SHIFT_REPEAT 7891]),
     (7824, [Entry 1 False, SHIFT 7681]), (7826, [Entry 1 True, SHIFT 7931]),
     (7828, [Entry 1 True, SHIFT 8931]),
     (7830, [Entry 2 True, REDUCE aux_sym_fb_decl_repeat2 2 0 0, SHIFT_REPEAT 7711]),
     (7833, [Entry 1 True, REDUCE sym_fb_decl 11 0 2097]),
     (7835, [Entry 1 False, REDUCE sym_fb_decl 11 0 2097]),
     (7837, [Entry 1 True, REDUCE sym_fb_decl 6 0 73]),
     (7839, [Entry 1 False, REDUCE sym_fb_decl 6 0 73]),
     (7841, [Entry 1 True, REDUCE sym_fb_decl 6 0 165]),
     (7843, [Entry 1 False, REDUCE sym_fb_decl 6 0 165]),
     (7845, [Entry 1 True, REDUCE sym_fb_decl 6 0 166]),
     (7847, [Entry 1 False, REDUCE sym_fb_decl 6 0 166]),
     (7849, [Entry 1 True, REDUCE sym_fb_decl 9 0 950]),
     (7851, [Entry 1 False, REDUCE sym_fb_decl 9 0 950]),
     (7853, [Entry 1 True, REDUCE sym_class_decl 4 0 26]),
     (7855, [Entry 1 False, REDUCE sym_class_decl 4 0 26]),
     (7857, [Entry 1 True, REDUCE sym_fb_decl 7 0 99]),
     (7859, [Entry 1 False, REDUCE sym_fb_decl 7 0 99]),
     (7861, [Entry 1 True, REDUCE sym_fb_decl 7 0 400]),
     (7863, [Entry 1 False, REDUCE sym_fb_decl 7 0 400]),
     (7865, [Entry 1 True, REDUCE sym_fb_decl 7 0 401]),
     (7867, [Entry 1 False, REDUCE sym_fb_decl 7 0 401]),
     (7869, [Entry 1 True, REDUCE sym_fb_decl 6 0 167]),
     (7871, [Entry 1 False, REDUCE sym_fb_decl 6 0 167]),
     (7873, [Entry 1 True, REDUCE sym_fb_decl 9 0 585]),
     (7875, [Entry 1 False, REDUCE sym_fb_decl 9 0 585]),
     (7877, [Entry 1 True, REDUCE sym_fb_decl 7 0 402]),
     (7879, [Entry 1 False, REDUCE sym_fb_decl 7 0 402]),
     (7881, [Entry 1 True, REDUCE sym_fb_decl 5 0 72]),
     (7883, [Entry 1 False, REDUCE sym_fb_decl 5 0 72]),
     (7885, [Entry 1 True, REDUCE sym_fb_decl 10 0 1217]),
     (7887, [Entry 1 False, REDUCE sym_fb_decl 10 0 1217]),
     (7889, [Entry 1 True, REDUCE sym_fb_decl 10 0 1218]),
     (7891, [Entry 1 False, REDUCE sym_fb_decl 10 0 1218]),
     (7893, [Entry 1 True, REDUCE sym_fb_decl 10 0 804]),
     (7895, [Entry 1 False, REDUCE sym_fb_decl 10 0 804]),
     (7897, [Entry 1 True, REDUCE sym_fb_decl 10 0 1219]),
     (7899, [Entry 1 False, REDUCE sym_fb_decl 10 0 1219]),
     (7901, [Entry 1 True, REDUCE sym_fb_decl 10 0 1220]),
     (7903, [Entry 1 False, REDUCE sym_fb_decl 10 0 1220]),
     (7905, [Entry 1 True, REDUCE sym_fb_decl 10 0 1221]),
     (7907, [Entry 1 False, REDUCE sym_fb_decl 10 0 1221]),
     (7909, [Entry 1 True, REDUCE sym_fb_decl 10 0 808]),
     (7911, [Entry 1 False, REDUCE sym_fb_decl 10 0 808]),
     (7913, [Entry 1 True, REDUCE sym_fb_decl 10 0 1222]),
     (7915, [Entry 1 False, REDUCE sym_fb_decl 10 0 1222]),
     (7917, [Entry 1 True, REDUCE sym_fb_decl 10 0 1223]),
     (7919, [Entry 1 False, REDUCE sym_fb_decl 10 0 1223]),
     (7921, [Entry 1 True, REDUCE sym_fb_decl 10 0 810]),
     (7923, [Entry 1 False, REDUCE sym_fb_decl 10 0 810]),
     (7925, [Entry 1 True, REDUCE sym_fb_decl 10 0 1224]),
     (7927, [Entry 1 False, REDUCE sym_fb_decl 10 0 1224]),
     (7929, [Entry 1 True, REDUCE sym_fb_decl 10 0 1225]),
     (7931, [Entry 1 False, REDUCE sym_fb_decl 10 0 1225]),
     (7933, [Entry 1 True, REDUCE sym_fb_decl 9 0 951]),
     (7935, [Entry 1 False, REDUCE sym_fb_decl 9 0 951]),
     (7937, [Entry 1 True, REDUCE sym_fb_decl 10 0 811]),
     (7939, [Entry 1 False, REDUCE sym_fb_decl 10 0 811]),
     (7941, [Entry 1 True, REDUCE sym_fb_decl 10 0 1226]),
     (7943, [Entry 1 False, REDUCE sym_fb_decl 10 0 1226]),
     (7945, [Entry 1 True, REDUCE sym_fb_decl 10 0 1227]),
     (7947, [Entry 1 False, REDUCE sym_fb_decl 10 0 1227]),
     (7949, [Entry 1 True, REDUCE sym_fb_decl 10 0 1228]),
     (7951, [Entry 1 False, REDUCE sym_fb_decl 10 0 1228]),
     (7953, [Entry 1 True, REDUCE sym_fb_decl 10 0 815]),
     (7955, [Entry 1 False, REDUCE sym_fb_decl 10 0 815]),
     (7957, [Entry 1 True, REDUCE sym_fb_decl 10 0 1229]),
     (7959, [Entry 1 False, REDUCE sym_fb_decl 10 0 1229]),
     (7961, [Entry 1 True, REDUCE sym_fb_decl 10 0 1230]),
     (7963, [Entry 1 False, REDUCE sym_fb_decl 10 0 1230]),
     (7965, [Entry 1 True, REDUCE sym_fb_decl 5 0 73]),
     (7967, [Entry 1 False, REDUCE sym_fb_decl 5 0 73]),
     (7969, [Entry 1 True, REDUCE sym_fb_decl 10 0 816]),
     (7971, [Entry 1 False, REDUCE sym_fb_decl 10 0 816]),
     (7973, [Entry 1 True, REDUCE sym_fb_decl 10 0 1231]),
     (7975, [Entry 1 False, REDUCE sym_fb_decl 10 0 1231]),
     (7977, [Entry 1 True, REDUCE sym_fb_decl 10 0 1232]),
     (7979, [Entry 1 False, REDUCE sym_fb_decl 10 0 1232]),
     (7981, [Entry 1 True, REDUCE sym_class_decl 4 0 25]),
     (7983, [Entry 1 False, REDUCE sym_class_decl 4 0 25]),
     (7985, [Entry 1 True, REDUCE sym_fb_decl 9 0 952]),
     (7987, [Entry 1 False, REDUCE sym_fb_decl 9 0 952]),
     (7989, [Entry 1 True, REDUCE sym_fb_decl 10 0 1233]),
     (7991, [Entry 1 False, REDUCE sym_fb_decl 10 0 1233]),
     (7993, [Entry 1 True, REDUCE sym_fb_decl 4 0 29]),
     (7995, [Entry 1 False, REDUCE sym_fb_decl 4 0 29]),
     (7997, [Entry 1 True, REDUCE sym_fb_decl 10 0 490]),
     (7999, [Entry 1 False, REDUCE sym_fb_decl 10 0 490]),
     (8001, [Entry 1 True, REDUCE sym_fb_decl 10 0 1234]),
     (8003, [Entry 1 False, REDUCE sym_fb_decl 10 0 1234]),
     (8005, [Entry 1 True, REDUCE sym_fb_decl 6 0 168]),
     (8007, [Entry 1 False, REDUCE sym_fb_decl 6 0 168]),
     (8009, [Entry 1 True, REDUCE sym_config_decl 3 0 5]),
     (8011, [Entry 1 False, REDUCE sym_config_decl 3 0 5]),
     (8013, [Entry 1 True, REDUCE sym_fb_decl 10 0 1235]),
     (8015, [Entry 1 False, REDUCE sym_fb_decl 10 0 1235]),
     (8017, [Entry 1 True, REDUCE sym_fb_decl 7 0 403])]"

lemma ts_parse_actions_26_tiled: "tiled_from 7711 ts_parse_actions_26 \<and> after_runs 7711 ts_parse_actions_26 = 8019"
  unfolding ts_parse_actions_26_def by (simp cong: runs_weak)

lemma ts_parse_actions_26_ok: "list_all (\<lambda>(i, es). group_ok es) ts_parse_actions_26"
  unfolding ts_parse_actions_26_def
  by (simp add: group_ok_simps entry_action_ok_simps del: One_nat_def group_ok.simps cong: list_all_weak)

text \<open>Lines 484621 to 484770.\<close>

definition ts_parse_actions_27 :: "(nat \<times> TSParseActionEntry list) list" where
  "ts_parse_actions_27 =
    [(8019, [Entry 1 False, REDUCE sym_fb_decl 7 0 403]),
     (8021, [Entry 1 True, REDUCE sym_fb_decl 9 0 586]),
     (8023, [Entry 1 False, REDUCE sym_fb_decl 9 0 586]),
     (8025, [Entry 1 True, REDUCE sym_fb_decl 7 0 222]),
     (8027, [Entry 1 False, REDUCE sym_fb_decl 7 0 222]),
     (8029, [Entry 1 True, REDUCE sym_fb_decl 10 0 1236]),
     (8031, [Entry 1 False, REDUCE sym_fb_decl 10 0 1236]),
     (8033, [Entry 1 True, REDUCE sym_fb_decl 7 0 404]),
     (8035, [Entry 1 False, REDUCE sym_fb_decl 7 0 404]),
     (8037, [Entry 1 True, REDUCE sym_fb_decl 10 0 817]),
     (8039, [Entry 1 False, REDUCE sym_fb_decl 10 0 817]),
     (8041, [Entry 1 True, REDUCE sym_fb_decl 10 0 1237]),
     (8043, [Entry 1 False, REDUCE sym_fb_decl 10 0 1237]),
     (8045, [Entry 1 True, REDUCE sym_fb_decl 10 0 1238]),
     (8047, [Entry 1 False, REDUCE sym_fb_decl 10 0 1238]),
     (8049, [Entry 1 True, REDUCE sym_fb_decl 10 0 1239]),
     (8051, [Entry 1 False, REDUCE sym_fb_decl 10 0 1239]),
     (8053, [Entry 1 True, REDUCE sym_fb_decl 10 0 822]),
     (8055, [Entry 1 False, REDUCE sym_fb_decl 10 0 822]),
     (8057, [Entry 1 True, REDUCE sym_fb_decl 10 0 1240]),
     (8059, [Entry 1 False, REDUCE sym_fb_decl 10 0 1240]),
     (8061, [Entry 1 True, REDUCE sym_fb_decl 10 0 1241]),
     (8063, [Entry 1 False, REDUCE sym_fb_decl 10 0 1241]),
     (8065, [Entry 1 True, REDUCE sym_fb_decl 10 0 824]),
     (8067, [Entry 1 False, REDUCE sym_fb_decl 10 0 824]),
     (8069, [Entry 1 True, REDUCE sym_fb_decl 10 0 1242]),
     (8071, [Entry 1 False, REDUCE sym_fb_decl 10 0 1242]),
     (8073, [Entry 1 True, REDUCE sym_fb_decl 10 0 1243]),
     (8075, [Entry 1 False, REDUCE sym_fb_decl 10 0 1243]),
     (8077, [Entry 1 True, REDUCE sym_fb_decl 7 0 405]),
     (8079, [Entry 1 False, REDUCE sym_fb_decl 7 0 405]),
     (8081, [Entry 1 True, REDUCE sym_fb_decl 9 0 953]),
     (8083, [Entry 1 False, REDUCE sym_fb_decl 9 0 953]),
     (8085, [Entry 1 True, REDUCE sym_fb_decl 10 0 1244]),
     (8087, [Entry 1 False, REDUCE sym_fb_decl 10 0 1244]),
     (8089, [Entry 1 True, REDUCE sym_fb_decl 7 0 223]),
     (8091, [Entry 1 False, REDUCE sym_fb_decl 7 0 223]),
     (8093, [Entry 1 True, REDUCE sym_fb_decl 7 0 406]),
     (8095, [Entry 1 False, REDUCE sym_fb_decl 7 0 406]),
     (8097, [Entry 1 True, REDUCE sym_fb_decl 7 0 407]),
     (8099, [Entry 1 False, REDUCE sym_fb_decl 7 0 407]),
     (8101, [Entry 1 True, REDUCE sym_fb_decl 9 0 954]),
     (8103, [Entry 1 False, REDUCE sym_fb_decl 9 0 954]),
     (8105, [Entry 1 True, REDUCE sym_fb_decl 6 0 74]),
     (8107, [Entry 1 False, REDUCE sym_fb_decl 6 0 74]),
     (8109, [Entry 1 True, REDUCE sym_fb_decl 7 0 408]),
     (8111, [Entry 1 False, REDUCE sym_fb_decl 7 0 408]),
     (8113, [Entry 1 True, REDUCE sym_fb_decl 6 0 169]),
     (8115, [Entry 1 False, REDUCE sym_fb_decl 6 0 169]),
     (8117, [Entry 1 True, REDUCE sym_fb_decl 10 0 1245]),
     (8119, [Entry 1 False, REDUCE sym_fb_decl 10 0 1245]),
     (8121, [Entry 1 True, REDUCE sym_fb_decl 7 0 224]),
     (8123, [Entry 1 False, REDUCE sym_fb_decl 7 0 224]),
     (8125, [Entry 1 True, REDUCE sym_fb_decl 10 0 1246]),
     (8127, [Entry 1 False, REDUCE sym_fb_decl 10 0 1246]),
     (8129, [Entry 1 True, REDUCE sym_fb_decl 10 0 827]),
     (8131, [Entry 1 False, REDUCE sym_fb_decl 10 0 827]),
     (8133, [Entry 1 True, REDUCE sym_fb_decl 10 0 1247]),
     (8135, [Entry 1 False, REDUCE sym_fb_decl 10 0 1247]),
     (8137, [Entry 1 True, REDUCE sym_fb_decl 10 0 1248]),
     (8139, [Entry 1 False, REDUCE sym_fb_decl 10 0 1248]),
     (8141, [Entry 1 True, REDUCE sym_fb_decl 10 0 829]),
     (8143, [Entry 1 False, REDUCE sym_fb_decl 10 0 829]),
     (8145, [Entry 1 True, REDUCE sym_fb_decl 10 0 1249]),
     (8147, [Entry 1 False, REDUCE sym_fb_decl 10 0 1249]),
     (8149, [Entry 1 True, REDUCE sym_fb_decl 10 0 1250]),
     (8151, [Entry 1 False, REDUCE sym_fb_decl 10 0 1250]),
     (8153, [Entry 1 True, REDUCE sym_fb_decl 7 0 409]),
     (8155, [Entry 1 False, REDUCE sym_fb_decl 7 0 409]),
     (8157, [Entry 1 True, REDUCE sym_fb_decl 10 0 830]),
     (8159, [Entry 1 False, REDUCE sym_fb_decl 10 0 830]),
     (8161, [Entry 1 True, REDUCE sym_fb_decl 10 0 1251]),
     (8163, [Entry 1 False, REDUCE sym_fb_decl 10 0 1251]),
     (8165, [Entry 1 True, REDUCE sym_fb_decl 10 0 1252]),
     (8167, [Entry 1 False, REDUCE sym_fb_decl 10 0 1252]),
     (8169, [Entry 1 True, REDUCE sym_fb_decl 10 0 831]),
     (8171, [Entry 1 False, REDUCE sym_fb_decl 10 0 831]),
     (8173, [Entry 1 True, REDUCE sym_fb_decl 10 0 1253]),
     (8175, [Entry 1 False, REDUCE sym_fb_decl 10 0 1253]),
     (8177, [Entry 1 True, REDUCE sym_fb_decl 10 0 1254]),
     (8179, [Entry 1 False, REDUCE sym_fb_decl 10 0 1254]),
     (8181, [Entry 1 True, REDUCE sym_fb_decl 7 0 225]),
     (8183, [Entry 1 False, REDUCE sym_fb_decl 7 0 225]),
     (8185, [Entry 1 True, REDUCE sym_fb_decl 10 0 832]),
     (8187, [Entry 1 False, REDUCE sym_fb_decl 10 0 832]),
     (8189, [Entry 1 True, REDUCE sym_fb_decl 10 0 1255]),
     (8191, [Entry 1 False, REDUCE sym_fb_decl 10 0 1255]),
     (8193, [Entry 1 True, REDUCE sym_fb_decl 10 0 1256]),
     (8195, [Entry 1 False, REDUCE sym_fb_decl 10 0 1256]),
     (8197, [Entry 1 True, REDUCE sym_fb_decl 7 0 410]),
     (8199, [Entry 1 False, REDUCE sym_fb_decl 7 0 410]),
     (8201, [Entry 1 True, REDUCE sym_fb_decl 7 0 411]),
     (8203, [Entry 1 False, REDUCE sym_fb_decl 7 0 411]),
     (8205, [Entry 1 True, REDUCE sym_fb_decl 10 0 1257]),
     (8207, [Entry 1 False, REDUCE sym_fb_decl 10 0 1257]),
     (8209, [Entry 1 True, REDUCE sym_fb_decl 6 0 170]),
     (8211, [Entry 1 False, REDUCE sym_fb_decl 6 0 170]),
     (8213, [Entry 1 True, REDUCE sym_fb_decl 10 0 833]),
     (8215, [Entry 1 False, REDUCE sym_fb_decl 10 0 833]),
     (8217, [Entry 1 True, REDUCE sym_fb_decl 10 0 1258]),
     (8219, [Entry 1 False, REDUCE sym_fb_decl 10 0 1258]),
     (8221, [Entry 1 True, REDUCE sym_fb_decl 10 0 1259]),
     (8223, [Entry 1 False, REDUCE sym_fb_decl 10 0 1259]),
     (8225, [Entry 1 True, REDUCE sym_fb_decl 10 0 1260]),
     (8227, [Entry 1 False, REDUCE sym_fb_decl 10 0 1260]),
     (8229, [Entry 1 True, REDUCE sym_fb_decl 10 0 838]),
     (8231, [Entry 1 False, REDUCE sym_fb_decl 10 0 838]),
     (8233, [Entry 1 True, REDUCE sym_fb_decl 10 0 1261]),
     (8235, [Entry 1 False, REDUCE sym_fb_decl 10 0 1261]),
     (8237, [Entry 1 True, REDUCE sym_fb_decl 10 0 1262]),
     (8239, [Entry 1 False, REDUCE sym_fb_decl 10 0 1262]),
     (8241, [Entry 1 True, REDUCE sym_fb_decl 10 0 840]),
     (8243, [Entry 1 False, REDUCE sym_fb_decl 10 0 840]),
     (8245, [Entry 1 True, REDUCE sym_fb_decl 10 0 1263]),
     (8247, [Entry 1 False, REDUCE sym_fb_decl 10 0 1263]),
     (8249, [Entry 1 True, REDUCE sym_fb_decl 10 0 1264]),
     (8251, [Entry 1 False, REDUCE sym_fb_decl 10 0 1264]),
     (8253, [Entry 1 True, REDUCE sym_fb_decl 9 0 893]),
     (8255, [Entry 1 False, REDUCE sym_fb_decl 9 0 893]),
     (8257, [Entry 1 True, REDUCE sym_fb_decl 10 0 841]),
     (8259, [Entry 1 False, REDUCE sym_fb_decl 10 0 841]),
     (8261, [Entry 1 True, REDUCE sym_fb_decl 10 0 1265]),
     (8263, [Entry 1 False, REDUCE sym_fb_decl 10 0 1265]),
     (8265, [Entry 1 True, REDUCE sym_fb_decl 10 0 1266]),
     (8267, [Entry 1 False, REDUCE sym_fb_decl 10 0 1266]),
     (8269, [Entry 1 True, REDUCE sym_fb_decl 10 0 842]),
     (8271, [Entry 1 False, REDUCE sym_fb_decl 10 0 842]),
     (8273, [Entry 1 True, REDUCE sym_fb_decl 10 0 1267]),
     (8275, [Entry 1 False, REDUCE sym_fb_decl 10 0 1267]),
     (8277, [Entry 1 True, REDUCE sym_fb_decl 10 0 1268]),
     (8279, [Entry 1 False, REDUCE sym_fb_decl 10 0 1268]),
     (8281, [Entry 1 True, REDUCE sym_fb_decl 7 0 412]),
     (8283, [Entry 1 False, REDUCE sym_fb_decl 7 0 412]),
     (8285, [Entry 1 True, REDUCE sym_fb_decl 10 0 843]),
     (8287, [Entry 1 False, REDUCE sym_fb_decl 10 0 843]),
     (8289, [Entry 1 True, REDUCE sym_fb_decl 10 0 1269]),
     (8291, [Entry 1 False, REDUCE sym_fb_decl 10 0 1269]),
     (8293, [Entry 1 True, REDUCE sym_fb_decl 10 0 1270]),
     (8295, [Entry 1 False, REDUCE sym_fb_decl 10 0 1270]),
     (8297, [Entry 1 True, REDUCE sym_fb_decl 5 0 74]),
     (8299, [Entry 1 False, REDUCE sym_fb_decl 5 0 74]),
     (8301, [Entry 1 True, REDUCE sym_fb_decl 6 0 171]),
     (8303, [Entry 1 False, REDUCE sym_fb_decl 6 0 171]),
     (8305, [Entry 1 True, REDUCE sym_fb_decl 10 0 1271]),
     (8307, [Entry 1 False, REDUCE sym_fb_decl 10 0 1271]),
     (8309, [Entry 1 True, REDUCE sym_func_decl 6 0 150]),
     (8311, [Entry 1 False, REDUCE sym_func_decl 6 0 150]),
     (8313, [Entry 1 True, REDUCE sym_fb_decl 10 0 844]),
     (8315, [Entry 1 False, REDUCE sym_fb_decl 10 0 844]),
     (8317, [Entry 1 True, REDUCE sym_fb_decl 10 0 1272])]"

lemma ts_parse_actions_27_tiled: "tiled_from 8019 ts_parse_actions_27 \<and> after_runs 8019 ts_parse_actions_27 = 8319"
  unfolding ts_parse_actions_27_def by (simp cong: runs_weak)

lemma ts_parse_actions_27_ok: "list_all (\<lambda>(i, es). group_ok es) ts_parse_actions_27"
  unfolding ts_parse_actions_27_def
  by (simp add: group_ok_simps entry_action_ok_simps del: One_nat_def group_ok.simps cong: list_all_weak)

text \<open>Lines 484771 to 484920.\<close>

definition ts_parse_actions_28 :: "(nat \<times> TSParseActionEntry list) list" where
  "ts_parse_actions_28 =
    [(8319, [Entry 1 False, REDUCE sym_fb_decl 10 0 1272]),
     (8321, [Entry 1 True, REDUCE sym_fb_decl 10 0 1273]),
     (8323, [Entry 1 False, REDUCE sym_fb_decl 10 0 1273]),
     (8325, [Entry 1 True, REDUCE sym_fb_decl 10 0 846]),
     (8327, [Entry 1 False, REDUCE sym_fb_decl 10 0 846]),
     (8329, [Entry 1 True, REDUCE sym_fb_decl 10 0 1274]),
     (8331, [Entry 1 False, REDUCE sym_fb_decl 10 0 1274]),
     (8333, [Entry 1 True, REDUCE sym_fb_decl 10 0 1275]),
     (8335, [Entry 1 False, REDUCE sym_fb_decl 10 0 1275]),
     (8337, [Entry 1 True, REDUCE sym_class_decl 4 0 31]),
     (8339, [Entry 1 False, REDUCE sym_class_decl 4 0 31]),
     (8341, [Entry 1 True, REDUCE sym_fb_decl 9 0 955]),
     (8343, [Entry 1 False, REDUCE sym_fb_decl 9 0 955]),
     (8345, [Entry 1 True, REDUCE sym_fb_decl 10 0 1276]),
     (8347, [Entry 1 False, REDUCE sym_fb_decl 10 0 1276]),
     (8349, [Entry 1 True, REDUCE sym_fb_decl 7 0 337]),
     (8351, [Entry 1 False, REDUCE sym_fb_decl 7 0 337]),
     (8353, [Entry 1 True, REDUCE sym_interface_decl 4 0 25]),
     (8355, [Entry 1 False, REDUCE sym_interface_decl 4 0 25]),
     (8357, [Entry 1 True, REDUCE sym_fb_decl 7 0 413]),
     (8359, [Entry 1 False, REDUCE sym_fb_decl 7 0 413]),
     (8361, [Entry 1 True, REDUCE sym_interface_decl 4 0 5]),
     (8363, [Entry 1 False, REDUCE sym_interface_decl 4 0 5]),
     (8365, [Entry 1 True, REDUCE sym_fb_decl 9 0 176]),
     (8367, [Entry 1 False, REDUCE sym_fb_decl 9 0 176]),
     (8369, [Entry 1 True, REDUCE sym_fb_decl 7 0 226]),
     (8371, [Entry 1 False, REDUCE sym_fb_decl 7 0 226]),
     (8373, [Entry 1 True, REDUCE sym_fb_decl 7 0 414]),
     (8375, [Entry 1 False, REDUCE sym_fb_decl 7 0 414]),
     (8377, [Entry 1 True, REDUCE sym_fb_decl 10 0 1277]),
     (8379, [Entry 1 False, REDUCE sym_fb_decl 10 0 1277]),
     (8381, [Entry 1 True, REDUCE sym_fb_decl 7 0 415]),
     (8383, [Entry 1 False, REDUCE sym_fb_decl 7 0 415]),
     (8385, [Entry 1 True, REDUCE sym_fb_decl 10 0 1278]),
     (8387, [Entry 1 False, REDUCE sym_fb_decl 10 0 1278]),
     (8389, [Entry 1 True, REDUCE sym_fb_decl 10 0 849]),
     (8391, [Entry 1 False, REDUCE sym_fb_decl 10 0 849]),
     (8393, [Entry 1 True, REDUCE sym_fb_decl 10 0 1279]),
     (8395, [Entry 1 False, REDUCE sym_fb_decl 10 0 1279]),
     (8397, [Entry 1 True, REDUCE sym_fb_decl 10 0 1280]),
     (8399, [Entry 1 False, REDUCE sym_fb_decl 10 0 1280]),
     (8401, [Entry 1 True, REDUCE sym_fb_decl 10 0 851]),
     (8403, [Entry 1 False, REDUCE sym_fb_decl 10 0 851]),
     (8405, [Entry 1 True, REDUCE sym_fb_decl 10 0 1281]),
     (8407, [Entry 1 False, REDUCE sym_fb_decl 10 0 1281]),
     (8409, [Entry 1 True, REDUCE sym_fb_decl 10 0 1282]),
     (8411, [Entry 1 False, REDUCE sym_fb_decl 10 0 1282]),
     (8413, [Entry 1 True, REDUCE sym_fb_decl 9 0 956]),
     (8415, [Entry 1 False, REDUCE sym_fb_decl 9 0 956]),
     (8417, [Entry 1 True, REDUCE sym_fb_decl 10 0 852]),
     (8419, [Entry 1 False, REDUCE sym_fb_decl 10 0 852]),
     (8421, [Entry 1 True, REDUCE sym_fb_decl 10 0 1283]),
     (8423, [Entry 1 False, REDUCE sym_fb_decl 10 0 1283]),
     (8425, [Entry 1 True, REDUCE sym_fb_decl 10 0 1284]),
     (8427, [Entry 1 False, REDUCE sym_fb_decl 10 0 1284]),
     (8429, [Entry 1 True, REDUCE sym_fb_decl 6 0 172]),
     (8431, [Entry 1 False, REDUCE sym_fb_decl 6 0 172]),
     (8433, [Entry 1 True, REDUCE sym_fb_decl 7 0 416]),
     (8435, [Entry 1 False, REDUCE sym_fb_decl 7 0 416]),
     (8437, [Entry 1 True, REDUCE sym_fb_decl 7 0 183]),
     (8439, [Entry 1 False, REDUCE sym_fb_decl 7 0 183]),
     (8441, [Entry 1 True, REDUCE sym_fb_decl 7 0 338]),
     (8443, [Entry 1 False, REDUCE sym_fb_decl 7 0 338]),
     (8445, [Entry 1 True, REDUCE sym_fb_decl 9 0 957]),
     (8447, [Entry 1 False, REDUCE sym_fb_decl 9 0 957]),
     (8449, [Entry 1 True, REDUCE sym_fb_decl 10 0 1285]),
     (8451, [Entry 1 False, REDUCE sym_fb_decl 10 0 1285]),
     (8453, [Entry 1 True, REDUCE sym_fb_decl 10 0 853]),
     (8455, [Entry 1 False, REDUCE sym_fb_decl 10 0 853]),
     (8457, [Entry 1 True, REDUCE sym_fb_decl 10 0 1286]),
     (8459, [Entry 1 False, REDUCE sym_fb_decl 10 0 1286]),
     (8461, [Entry 1 True, REDUCE sym_fb_decl 10 0 1287]),
     (8463, [Entry 1 False, REDUCE sym_fb_decl 10 0 1287]),
     (8465, [Entry 1 True, REDUCE sym_fb_decl 7 0 339]),
     (8467, [Entry 1 False, REDUCE sym_fb_decl 7 0 339]),
     (8469, [Entry 1 True, REDUCE sym_fb_decl 10 0 854]),
     (8471, [Entry 1 False, REDUCE sym_fb_decl 10 0 854]),
     (8473, [Entry 1 True, REDUCE sym_fb_decl 10 0 1288]),
     (8475, [Entry 1 False, REDUCE sym_fb_decl 10 0 1288]),
     (8477, [Entry 1 True, REDUCE sym_fb_decl 10 0 1289]),
     (8479, [Entry 1 False, REDUCE sym_fb_decl 10 0 1289]),
     (8481, [Entry 1 True, REDUCE sym_func_decl 6 0 151]),
     (8483, [Entry 1 False, REDUCE sym_func_decl 6 0 151]),
     (8485, [Entry 1 True, REDUCE sym_fb_decl 7 0 184]),
     (8487, [Entry 1 False, REDUCE sym_fb_decl 7 0 184]),
     (8489, [Entry 1 True, REDUCE sym_fb_decl 10 0 1290]),
     (8491, [Entry 1 False, REDUCE sym_fb_decl 10 0 1290]),
     (8493, [Entry 1 True, REDUCE sym_fb_decl 9 0 958]),
     (8495, [Entry 1 False, REDUCE sym_fb_decl 9 0 958]),
     (8497, [Entry 1 True, REDUCE sym_fb_decl 10 0 283]),
     (8499, [Entry 1 False, REDUCE sym_fb_decl 10 0 283]),
     (8501, [Entry 1 True, REDUCE sym_fb_decl 10 0 1291]),
     (8503, [Entry 1 False, REDUCE sym_fb_decl 10 0 1291]),
     (8505, [Entry 1 True, REDUCE sym_fb_decl 7 0 340]),
     (8507, [Entry 1 False, REDUCE sym_fb_decl 7 0 340]),
     (8509, [Entry 1 True, REDUCE sym_fb_decl 7 0 417]),
     (8511, [Entry 1 False, REDUCE sym_fb_decl 7 0 417]),
     (8513, [Entry 1 True, REDUCE sym_fb_decl 10 0 1292]),
     (8515, [Entry 1 False, REDUCE sym_fb_decl 10 0 1292]),
     (8517, [Entry 1 True, REDUCE sym_fb_decl 9 0 587]),
     (8519, [Entry 1 False, REDUCE sym_fb_decl 9 0 587]),
     (8521, [Entry 1 True, REDUCE sym_fb_decl 7 0 418]),
     (8523, [Entry 1 False, REDUCE sym_fb_decl 7 0 418]),
     (8525, [Entry 1 True, REDUCE sym_fb_decl 9 0 959]),
     (8527, [Entry 1 False, REDUCE sym_fb_decl 9 0 959]),
     (8529, [Entry 1 True, REDUCE sym_fb_decl 10 0 1293]),
     (8531, [Entry 1 False, REDUCE sym_fb_decl 10 0 1293]),
     (8533, [Entry 1 True, REDUCE sym_fb_decl 9 0 960]),
     (8535, [Entry 1 False, REDUCE sym_fb_decl 9 0 960]),
     (8537, [Entry 1 True, REDUCE sym_fb_decl 10 0 855]),
     (8539, [Entry 1 False, REDUCE sym_fb_decl 10 0 855]),
     (8541, [Entry 1 True, REDUCE sym_fb_decl 10 0 1294]),
     (8543, [Entry 1 False, REDUCE sym_fb_decl 10 0 1294]),
     (8545, [Entry 1 True, REDUCE sym_fb_decl 10 0 1295]),
     (8547, [Entry 1 False, REDUCE sym_fb_decl 10 0 1295]),
     (8549, [Entry 1 True, REDUCE sym_fb_decl 10 0 1296]),
     (8551, [Entry 1 False, REDUCE sym_fb_decl 10 0 1296]),
     (8553, [Entry 1 True, REDUCE sym_fb_decl 10 0 1297]),
     (8555, [Entry 1 False, REDUCE sym_fb_decl 10 0 1297]),
     (8557, [Entry 1 True, REDUCE sym_fb_decl 10 0 862]),
     (8559, [Entry 1 False, REDUCE sym_fb_decl 10 0 862]),
     (8561, [Entry 1 True, REDUCE sym_fb_decl 10 0 1298]),
     (8563, [Entry 1 False, REDUCE sym_fb_decl 10 0 1298]),
     (8565, [Entry 1 True, REDUCE sym_fb_decl 10 0 1299]),
     (8567, [Entry 1 False, REDUCE sym_fb_decl 10 0 1299]),
     (8569, [Entry 1 True, REDUCE sym_fb_decl 9 0 961]),
     (8571, [Entry 1 False, REDUCE sym_fb_decl 9 0 961]),
     (8573, [Entry 1 True, REDUCE sym_fb_decl 10 0 863]),
     (8575, [Entry 1 False, REDUCE sym_fb_decl 10 0 863]),
     (8577, [Entry 1 True, REDUCE sym_fb_decl 10 0 1300]),
     (8579, [Entry 1 False, REDUCE sym_fb_decl 10 0 1300]),
     (8581, [Entry 1 True, REDUCE sym_fb_decl 10 0 1301]),
     (8583, [Entry 1 False, REDUCE sym_fb_decl 10 0 1301]),
     (8585, [Entry 1 True, REDUCE sym_fb_decl 9 0 962]),
     (8587, [Entry 1 False, REDUCE sym_fb_decl 9 0 962]),
     (8589, [Entry 1 True, REDUCE sym_fb_decl 9 0 594]),
     (8591, [Entry 1 False, REDUCE sym_fb_decl 9 0 594]),
     (8593, [Entry 1 True, REDUCE sym_fb_decl 10 0 1302]),
     (8595, [Entry 1 False, REDUCE sym_fb_decl 10 0 1302]),
     (8597, [Entry 1 True, REDUCE sym_fb_decl 7 0 419]),
     (8599, [Entry 1 False, REDUCE sym_fb_decl 7 0 419]),
     (8601, [Entry 1 True, REDUCE sym_fb_decl 10 0 515]),
     (8603, [Entry 1 False, REDUCE sym_fb_decl 10 0 515]),
     (8605, [Entry 1 True, REDUCE sym_fb_decl 10 0 1303]),
     (8607, [Entry 1 False, REDUCE sym_fb_decl 10 0 1303]),
     (8609, [Entry 1 True, REDUCE sym_fb_decl 9 0 963]),
     (8611, [Entry 1 False, REDUCE sym_fb_decl 9 0 963]),
     (8613, [Entry 1 True, REDUCE sym_fb_decl 6 0 175]),
     (8615, [Entry 1 False, REDUCE sym_fb_decl 6 0 175]),
     (8617, [Entry 1 True, REDUCE sym_fb_decl 10 0 1304])]"

lemma ts_parse_actions_28_tiled: "tiled_from 8319 ts_parse_actions_28 \<and> after_runs 8319 ts_parse_actions_28 = 8619"
  unfolding ts_parse_actions_28_def by (simp cong: runs_weak)

lemma ts_parse_actions_28_ok: "list_all (\<lambda>(i, es). group_ok es) ts_parse_actions_28"
  unfolding ts_parse_actions_28_def
  by (simp add: group_ok_simps entry_action_ok_simps del: One_nat_def group_ok.simps cong: list_all_weak)

text \<open>Lines 484921 to 485070.\<close>

definition ts_parse_actions_29 :: "(nat \<times> TSParseActionEntry list) list" where
  "ts_parse_actions_29 =
    [(8619, [Entry 1 False, REDUCE sym_fb_decl 10 0 1304]),
     (8621, [Entry 1 True, REDUCE sym_fb_decl 9 0 964]),
     (8623, [Entry 1 False, REDUCE sym_fb_decl 9 0 964]),
     (8625, [Entry 1 True, REDUCE sym_fb_decl 7 0 341]),
     (8627, [Entry 1 False, REDUCE sym_fb_decl 7 0 341]),
     (8629, [Entry 1 True, REDUCE sym_fb_decl 9 0 595]),
     (8631, [Entry 1 False, REDUCE sym_fb_decl 9 0 595]),
     (8633, [Entry 1 True, REDUCE sym_fb_decl 10 0 1305]),
     (8635, [Entry 1 False, REDUCE sym_fb_decl 10 0 1305]),
     (8637, [Entry 1 True, REDUCE sym_fb_decl 9 0 965]),
     (8639, [Entry 1 False, REDUCE sym_fb_decl 9 0 965]),
     (8641, [Entry 1 True, REDUCE sym_fb_decl 10 0 864]),
     (8643, [Entry 1 False, REDUCE sym_fb_decl 10 0 864]),
     (8645, [Entry 1 True, REDUCE sym_fb_decl 10 0 1306]),
     (8647, [Entry 1 False, REDUCE sym_fb_decl 10 0 1306]),
     (8649, [Entry 1 True, REDUCE sym_fb_decl 10 0 1307]),
     (8651, [Entry 1 False, REDUCE sym_fb_decl 10 0 1307]),
     (8653, [Entry 1 True, REDUCE sym_fb_decl 10 0 1308]),
     (8655, [Entry 1 False, REDUCE sym_fb_decl 10 0 1308]),
     (8657, [Entry 1 True, REDUCE sym_fb_decl 10 0 869]),
     (8659, [Entry 1 False, REDUCE sym_fb_decl 10 0 869]),
     (8661, [Entry 1 True, REDUCE sym_fb_decl 10 0 1309]),
     (8663, [Entry 1 False, REDUCE sym_fb_decl 10 0 1309]),
     (8665, [Entry 1 True, REDUCE sym_fb_decl 10 0 1310]),
     (8667, [Entry 1 False, REDUCE sym_fb_decl 10 0 1310]),
     (8669, [Entry 1 True, REDUCE sym_fb_decl 10 0 1311]),
     (8671, [Entry 1 False, REDUCE sym_fb_decl 10 0 1311]),
     (8673, [Entry 1 True, REDUCE sym_fb_decl 10 0 873]),
     (8675, [Entry 1 False, REDUCE sym_fb_decl 10 0 873]),
     (8677, [Entry 1 True, REDUCE sym_fb_decl 10 0 1312]),
     (8679, [Entry 1 False, REDUCE sym_fb_decl 10 0 1312]),
     (8681, [Entry 1 True, REDUCE sym_fb_decl 10 0 1313]),
     (8683, [Entry 1 False, REDUCE sym_fb_decl 10 0 1313]),
     (8685, [Entry 1 True, REDUCE sym_fb_decl 10 0 875]),
     (8687, [Entry 1 False, REDUCE sym_fb_decl 10 0 875]),
     (8689, [Entry 1 True, REDUCE sym_fb_decl 10 0 1314]),
     (8691, [Entry 1 False, REDUCE sym_fb_decl 10 0 1314]),
     (8693, [Entry 1 True, REDUCE sym_fb_decl 10 0 1315]),
     (8695, [Entry 1 False, REDUCE sym_fb_decl 10 0 1315]),
     (8697, [Entry 1 True, REDUCE sym_fb_decl 7 0 420]),
     (8699, [Entry 1 False, REDUCE sym_fb_decl 7 0 420]),
     (8701, [Entry 1 True, REDUCE sym_fb_decl 10 0 876]),
     (8703, [Entry 1 False, REDUCE sym_fb_decl 10 0 876]),
     (8705, [Entry 1 True, REDUCE sym_fb_decl 10 0 1316]),
     (8707, [Entry 1 False, REDUCE sym_fb_decl 10 0 1316]),
     (8709, [Entry 1 True, REDUCE sym_fb_decl 10 0 1317]),
     (8711, [Entry 1 False, REDUCE sym_fb_decl 10 0 1317]),
     (8713, [Entry 1 True, REDUCE sym_fb_decl 10 0 1318]),
     (8715, [Entry 1 False, REDUCE sym_fb_decl 10 0 1318]),
     (8717, [Entry 1 True, REDUCE sym_fb_decl 10 0 1319]),
     (8719, [Entry 1 False, REDUCE sym_fb_decl 10 0 1319]),
     (8721, [Entry 1 True, REDUCE sym_fb_decl 10 0 1320]),
     (8723, [Entry 1 False, REDUCE sym_fb_decl 10 0 1320]),
     (8725, [Entry 1 True, REDUCE sym_fb_decl 10 0 888]),
     (8727, [Entry 1 False, REDUCE sym_fb_decl 10 0 888]),
     (8729, [Entry 1 True, REDUCE sym_fb_decl 10 0 1321]),
     (8731, [Entry 1 False, REDUCE sym_fb_decl 10 0 1321]),
     (8733, [Entry 1 True, REDUCE sym_fb_decl 10 0 1322]),
     (8735, [Entry 1 False, REDUCE sym_fb_decl 10 0 1322]),
     (8737, [Entry 1 True, REDUCE sym_fb_decl 10 0 1323]),
     (8739, [Entry 1 False, REDUCE sym_fb_decl 10 0 1323]),
     (8741, [Entry 1 True, REDUCE sym_fb_decl 10 0 893]),
     (8743, [Entry 1 False, REDUCE sym_fb_decl 10 0 893]),
     (8745, [Entry 1 True, REDUCE sym_fb_decl 10 0 1324]),
     (8747, [Entry 1 False, REDUCE sym_fb_decl 10 0 1324]),
     (8749, [Entry 1 True, REDUCE sym_fb_decl 10 0 1325]),
     (8751, [Entry 1 False, REDUCE sym_fb_decl 10 0 1325]),
     (8753, [Entry 1 True, REDUCE sym_fb_decl 10 0 895]),
     (8755, [Entry 1 False, REDUCE sym_fb_decl 10 0 895]),
     (8757, [Entry 1 True, REDUCE sym_fb_decl 10 0 1326]),
     (8759, [Entry 1 False, REDUCE sym_fb_decl 10 0 1326]),
     (8761, [Entry 1 True, REDUCE sym_fb_decl 10 0 1327]),
     (8763, [Entry 1 False, REDUCE sym_fb_decl 10 0 1327]),
     (8765, [Entry 1 True, REDUCE sym_fb_decl 7 0 228]),
     (8767, [Entry 1 False, REDUCE sym_fb_decl 7 0 228]),
     (8769, [Entry 1 True, REDUCE sym_fb_decl 10 0 896]),
     (8771, [Entry 1 False, REDUCE sym_fb_decl 10 0 896]),
     (8773, [Entry 1 True, REDUCE sym_fb_decl 10 0 1328]),
     (8775, [Entry 1 False, REDUCE sym_fb_decl 10 0 1328]),
     (8777, [Entry 1 True, REDUCE sym_fb_decl 10 0 1329]),
     (8779, [Entry 1 False, REDUCE sym_fb_decl 10 0 1329]),
     (8781, [Entry 1 True, REDUCE sym_fb_decl 10 0 897]),
     (8783, [Entry 1 False, REDUCE sym_fb_decl 10 0 897]),
     (8785, [Entry 1 True, REDUCE sym_fb_decl 10 0 1330]),
     (8787, [Entry 1 False, REDUCE sym_fb_decl 10 0 1330]),
     (8789, [Entry 1 True, REDUCE sym_fb_decl 10 0 1331]),
     (8791, [Entry 1 False, REDUCE sym_fb_decl 10 0 1331]),
     (8793, [Entry 1 True, REDUCE sym_fb_decl 7 0 421]),
     (8795, [Entry 1 False, REDUCE sym_fb_decl 7 0 421]),
     (8797, [Entry 1 True, REDUCE sym_fb_decl 10 0 898]),
     (8799, [Entry 1 False, REDUCE sym_fb_decl 10 0 898]),
     (8801, [Entry 1 True, REDUCE sym_fb_decl 10 0 1332]),
     (8803, [Entry 1 False, REDUCE sym_fb_decl 10 0 1332]),
     (8805, [Entry 1 True, REDUCE sym_fb_decl 10 0 1333]),
     (8807, [Entry 1 False, REDUCE sym_fb_decl 10 0 1333]),
     (8809, [Entry 1 True, REDUCE sym_fb_decl 7 0 422]),
     (8811, [Entry 1 False, REDUCE sym_fb_decl 7 0 422]),
     (8813, [Entry 1 True, REDUCE sym_fb_decl 9 0 966]),
     (8815, [Entry 1 False, REDUCE sym_fb_decl 9 0 966]),
     (8817, [Entry 1 True, REDUCE sym_fb_decl 10 0 1334]),
     (8819, [Entry 1 False, REDUCE sym_fb_decl 10 0 1334]),
     (8821, [Entry 1 True, REDUCE sym_fb_decl 7 0 229]),
     (8823, [Entry 1 False, REDUCE sym_fb_decl 7 0 229]),
     (8825, [Entry 1 True, REDUCE sym_fb_decl 10 0 899]),
     (8827, [Entry 1 False, REDUCE sym_fb_decl 10 0 899]),
     (8829, [Entry 1 True, REDUCE sym_fb_decl 10 0 1335]),
     (8831, [Entry 1 False, REDUCE sym_fb_decl 10 0 1335]),
     (8833, [Entry 1 True, REDUCE sym_fb_decl 10 0 1336]),
     (8835, [Entry 1 False, REDUCE sym_fb_decl 10 0 1336]),
     (8837, [Entry 1 True, REDUCE sym_fb_decl 10 0 1337]),
     (8839, [Entry 1 False, REDUCE sym_fb_decl 10 0 1337]),
     (8841, [Entry 1 True, REDUCE sym_fb_decl 10 0 1338]),
     (8843, [Entry 1 False, REDUCE sym_fb_decl 10 0 1338]),
     (8845, [Entry 1 True, REDUCE sym_fb_decl 10 0 906]),
     (8847, [Entry 1 False, REDUCE sym_fb_decl 10 0 906]),
     (8849, [Entry 1 True, REDUCE sym_fb_decl 10 0 1339]),
     (8851, [Entry 1 False, REDUCE sym_fb_decl 10 0 1339]),
     (8853, [Entry 1 True, REDUCE sym_fb_decl 10 0 1340]),
     (8855, [Entry 1 False, REDUCE sym_fb_decl 10 0 1340]),
     (8857, [Entry 1 True, REDUCE sym_fb_decl 7 0 423]),
     (8859, [Entry 1 False, REDUCE sym_fb_decl 7 0 423]),
     (8861, [Entry 1 True, REDUCE sym_fb_decl 10 0 907]),
     (8863, [Entry 1 False, REDUCE sym_fb_decl 10 0 907]),
     (8865, [Entry 1 True, REDUCE sym_fb_decl 10 0 1341]),
     (8867, [Entry 1 False, REDUCE sym_fb_decl 10 0 1341]),
     (8869, [Entry 1 True, REDUCE sym_fb_decl 10 0 1342]),
     (8871, [Entry 1 False, REDUCE sym_fb_decl 10 0 1342]),
     (8873, [Entry 1 True, REDUCE sym_fb_decl 7 0 424]),
     (8875, [Entry 1 False, REDUCE sym_fb_decl 7 0 424]),
     (8877, [Entry 1 True, REDUCE sym_fb_decl 6 0 176]),
     (8879, [Entry 1 False, REDUCE sym_fb_decl 6 0 176]),
     (8881, [Entry 1 True, REDUCE sym_fb_decl 10 0 1343]),
     (8883, [Entry 1 False, REDUCE sym_fb_decl 10 0 1343]),
     (8885, [Entry 1 True, REDUCE sym_func_decl 6 0 152]),
     (8887, [Entry 1 False, REDUCE sym_func_decl 6 0 152]),
     (8889, [Entry 1 True, REDUCE sym_fb_decl 10 0 555]),
     (8891, [Entry 1 False, REDUCE sym_fb_decl 10 0 555]),
     (8893, [Entry 1 True, REDUCE sym_fb_decl 10 0 1344]),
     (8895, [Entry 1 False, REDUCE sym_fb_decl 10 0 1344]),
     (8897, [Entry 1 True, REDUCE sym_fb_decl 7 0 425]),
     (8899, [Entry 1 False, REDUCE sym_fb_decl 7 0 425]),
     (8901, [Entry 1 True, REDUCE sym_interface_decl 4 0 32]),
     (8903, [Entry 1 False, REDUCE sym_interface_decl 4 0 32]),
     (8905, [Entry 1 True, REDUCE sym_fb_decl 10 0 1345]),
     (8907, [Entry 1 False, REDUCE sym_fb_decl 10 0 1345]),
     (8909, [Entry 1 True, REDUCE sym_prog_decl 4 0 23]),
     (8911, [Entry 1 False, REDUCE sym_prog_decl 4 0 23]),
     (8913, [Entry 1 True, REDUCE sym_fb_decl 7 0 38]),
     (8915, [Entry 1 False, REDUCE sym_fb_decl 7 0 38]),
     (8917, [Entry 1 True, REDUCE sym_fb_decl 7 0 426])]"

lemma ts_parse_actions_29_tiled: "tiled_from 8619 ts_parse_actions_29 \<and> after_runs 8619 ts_parse_actions_29 = 8919"
  unfolding ts_parse_actions_29_def by (simp cong: runs_weak)

lemma ts_parse_actions_29_ok: "list_all (\<lambda>(i, es). group_ok es) ts_parse_actions_29"
  unfolding ts_parse_actions_29_def
  by (simp add: group_ok_simps entry_action_ok_simps del: One_nat_def group_ok.simps cong: list_all_weak)

text \<open>Lines 485071 to 485220.\<close>

definition ts_parse_actions_30 :: "(nat \<times> TSParseActionEntry list) list" where
  "ts_parse_actions_30 =
    [(8919, [Entry 1 False, REDUCE sym_fb_decl 7 0 426]),
     (8921, [Entry 1 True, REDUCE sym_fb_decl 10 0 1346]),
     (8923, [Entry 1 False, REDUCE sym_fb_decl 10 0 1346]),
     (8925, [Entry 1 True, REDUCE sym_fb_decl 5 0 5]),
     (8927, [Entry 1 False, REDUCE sym_fb_decl 5 0 5]),
     (8929, [Entry 1 True, REDUCE sym_fb_decl 10 0 908]),
     (8931, [Entry 1 False, REDUCE sym_fb_decl 10 0 908]),
     (8933, [Entry 1 True, REDUCE sym_fb_decl 10 0 1347]),
     (8935, [Entry 1 False, REDUCE sym_fb_decl 10 0 1347]),
     (8937, [Entry 1 True, REDUCE sym_fb_decl 10 0 1348]),
     (8939, [Entry 1 False, REDUCE sym_fb_decl 10 0 1348]),
     (8941, [Entry 1 True, REDUCE sym_fb_decl 10 0 1349]),
     (8943, [Entry 1 False, REDUCE sym_fb_decl 10 0 1349]),
     (8945, [Entry 1 True, REDUCE sym_fb_decl 10 0 913]),
     (8947, [Entry 1 False, REDUCE sym_fb_decl 10 0 913]),
     (8949, [Entry 1 True, REDUCE sym_fb_decl 10 0 1350]),
     (8951, [Entry 1 False, REDUCE sym_fb_decl 10 0 1350]),
     (8953, [Entry 1 True, REDUCE sym_fb_decl 10 0 1351]),
     (8955, [Entry 1 False, REDUCE sym_fb_decl 10 0 1351]),
     (8957, [Entry 1 True, REDUCE sym_fb_decl 10 0 1352]),
     (8959, [Entry 1 False, REDUCE sym_fb_decl 10 0 1352]),
     (8961, [Entry 1 True, REDUCE sym_fb_decl 10 0 917]),
     (8963, [Entry 1 False, REDUCE sym_fb_decl 10 0 917]),
     (8965, [Entry 1 True, REDUCE sym_fb_decl 10 0 1353]),
     (8967, [Entry 1 False, REDUCE sym_fb_decl 10 0 1353]),
     (8969, [Entry 1 True, REDUCE sym_fb_decl 10 0 1354]),
     (8971, [Entry 1 False, REDUCE sym_fb_decl 10 0 1354]),
     (8973, [Entry 1 True, REDUCE sym_fb_decl 10 0 919]),
     (8975, [Entry 1 False, REDUCE sym_fb_decl 10 0 919]),
     (8977, [Entry 1 True, REDUCE sym_fb_decl 10 0 1355]),
     (8979, [Entry 1 False, REDUCE sym_fb_decl 10 0 1355]),
     (8981, [Entry 1 True, REDUCE sym_fb_decl 10 0 1356]),
     (8983, [Entry 1 False, REDUCE sym_fb_decl 10 0 1356]),
     (8985, [Entry 1 True, REDUCE sym_fb_decl 5 0 75]),
     (8987, [Entry 1 False, REDUCE sym_fb_decl 5 0 75]),
     (8989, [Entry 1 True, REDUCE sym_fb_decl 10 0 920]),
     (8991, [Entry 1 False, REDUCE sym_fb_decl 10 0 920]),
     (8993, [Entry 1 True, REDUCE sym_fb_decl 10 0 1357]),
     (8995, [Entry 1 False, REDUCE sym_fb_decl 10 0 1357]),
     (8997, [Entry 1 True, REDUCE sym_fb_decl 10 0 1358]),
     (8999, [Entry 1 False, REDUCE sym_fb_decl 10 0 1358]),
     (9001, [Entry 1 True, REDUCE sym_fb_decl 10 0 1361]),
     (9003, [Entry 1 False, REDUCE sym_fb_decl 10 0 1361]),
     (9005, [Entry 1 True, REDUCE sym_fb_decl 10 0 1362]),
     (9007, [Entry 1 False, REDUCE sym_fb_decl 10 0 1362]),
     (9009, [Entry 1 True, REDUCE sym_fb_decl 10 0 929]),
     (9011, [Entry 1 False, REDUCE sym_fb_decl 10 0 929]),
     (9013, [Entry 1 True, REDUCE sym_fb_decl 10 0 1363]),
     (9015, [Entry 1 False, REDUCE sym_fb_decl 10 0 1363]),
     (9017, [Entry 1 True, REDUCE sym_fb_decl 10 0 1364]),
     (9019, [Entry 1 False, REDUCE sym_fb_decl 10 0 1364]),
     (9021, [Entry 1 True, REDUCE sym_fb_decl 10 0 1365]),
     (9023, [Entry 1 False, REDUCE sym_fb_decl 10 0 1365]),
     (9025, [Entry 1 True, REDUCE sym_fb_decl 10 0 933]),
     (9027, [Entry 1 False, REDUCE sym_fb_decl 10 0 933]),
     (9029, [Entry 1 True, REDUCE sym_fb_decl 10 0 1366]),
     (9031, [Entry 1 False, REDUCE sym_fb_decl 10 0 1366]),
     (9033, [Entry 1 True, REDUCE sym_fb_decl 10 0 1367]),
     (9035, [Entry 1 False, REDUCE sym_fb_decl 10 0 1367]),
     (9037, [Entry 1 True, REDUCE sym_fb_decl 10 0 935]),
     (9039, [Entry 1 False, REDUCE sym_fb_decl 10 0 935]),
     (9041, [Entry 1 True, REDUCE sym_fb_decl 10 0 1368]),
     (9043, [Entry 1 False, REDUCE sym_fb_decl 10 0 1368]),
     (9045, [Entry 1 True, REDUCE sym_fb_decl 10 0 1369]),
     (9047, [Entry 1 False, REDUCE sym_fb_decl 10 0 1369]),
     (9049, [Entry 1 True, REDUCE sym_fb_decl 7 0 427]),
     (9051, [Entry 1 False, REDUCE sym_fb_decl 7 0 427]),
     (9053, [Entry 1 True, REDUCE sym_fb_decl 10 0 936]),
     (9055, [Entry 1 False, REDUCE sym_fb_decl 10 0 936]),
     (9057, [Entry 1 True, REDUCE sym_fb_decl 10 0 1370]),
     (9059, [Entry 1 False, REDUCE sym_fb_decl 10 0 1370]),
     (9061, [Entry 1 True, REDUCE sym_fb_decl 10 0 1371]),
     (9063, [Entry 1 False, REDUCE sym_fb_decl 10 0 1371]),
     (9065, [Entry 1 True, REDUCE sym_fb_decl 10 0 1372]),
     (9067, [Entry 1 False, REDUCE sym_fb_decl 10 0 1372]),
     (9069, [Entry 1 True, REDUCE sym_fb_decl 10 0 940]),
     (9071, [Entry 1 False, REDUCE sym_fb_decl 10 0 940]),
     (9073, [Entry 1 True, REDUCE sym_fb_decl 10 0 1373]),
     (9075, [Entry 1 False, REDUCE sym_fb_decl 10 0 1373]),
     (9077, [Entry 1 True, REDUCE sym_fb_decl 10 0 1374]),
     (9079, [Entry 1 False, REDUCE sym_fb_decl 10 0 1374]),
     (9081, [Entry 1 True, REDUCE sym_fb_decl 5 0 76]),
     (9083, [Entry 1 False, REDUCE sym_fb_decl 5 0 76]),
     (9085, [Entry 1 True, REDUCE sym_fb_decl 10 0 941]),
     (9087, [Entry 1 False, REDUCE sym_fb_decl 10 0 941]),
     (9089, [Entry 1 True, REDUCE sym_fb_decl 10 0 1375]),
     (9091, [Entry 1 False, REDUCE sym_fb_decl 10 0 1375]),
     (9093, [Entry 1 True, REDUCE sym_fb_decl 10 0 1376]),
     (9095, [Entry 1 False, REDUCE sym_fb_decl 10 0 1376]),
     (9097, [Entry 1 True, REDUCE sym_fb_decl 6 0 177]),
     (9099, [Entry 1 False, REDUCE sym_fb_decl 6 0 177]),
     (9101, [Entry 1 True, REDUCE sym_fb_decl 6 0 76]),
     (9103, [Entry 1 False, REDUCE sym_fb_decl 6 0 76]),
     (9105, [Entry 1 True, REDUCE sym_fb_decl 10 0 1377]),
     (9107, [Entry 1 False, REDUCE sym_fb_decl 10 0 1377]),
     (9109, [Entry 1 True, REDUCE sym_fb_decl 6 0 178]),
     (9111, [Entry 1 False, REDUCE sym_fb_decl 6 0 178]),
     (9113, [Entry 1 True, REDUCE sym_fb_decl 10 0 578]),
     (9115, [Entry 1 False, REDUCE sym_fb_decl 10 0 578]),
     (9117, [Entry 1 True, REDUCE sym_fb_decl 10 0 1378]),
     (9119, [Entry 1 False, REDUCE sym_fb_decl 10 0 1378]),
     (9121, [Entry 1 True, REDUCE sym_fb_decl 6 0 179]),
     (9123, [Entry 1 False, REDUCE sym_fb_decl 6 0 179]),
     (9125, [Entry 1 True, REDUCE sym_prog_decl 4 0 33]),
     (9127, [Entry 1 False, REDUCE sym_prog_decl 4 0 33]),
     (9129, [Entry 1 True, REDUCE sym_fb_decl 10 0 1379]),
     (9131, [Entry 1 False, REDUCE sym_fb_decl 10 0 1379]),
     (9133, [Entry 1 True, REDUCE sym_fb_decl 6 0 77]),
     (9135, [Entry 1 False, REDUCE sym_fb_decl 6 0 77]),
     (9137, [Entry 1 True, REDUCE sym_fb_decl 7 0 428]),
     (9139, [Entry 1 False, REDUCE sym_fb_decl 7 0 428]),
     (9141, [Entry 1 True, REDUCE sym_fb_decl 6 0 180]),
     (9143, [Entry 1 False, REDUCE sym_fb_decl 6 0 180]),
     (9145, [Entry 1 True, REDUCE sym_fb_decl 10 0 1380]),
     (9147, [Entry 1 False, REDUCE sym_fb_decl 10 0 1380]),
     (9149, [Entry 1 True, REDUCE sym_fb_decl 7 0 230]),
     (9151, [Entry 1 False, REDUCE sym_fb_decl 7 0 230]),
     (9153, [Entry 1 True, REDUCE sym_fb_decl 10 0 942]),
     (9155, [Entry 1 False, REDUCE sym_fb_decl 10 0 942]),
     (9157, [Entry 1 True, REDUCE sym_fb_decl 10 0 1381]),
     (9159, [Entry 1 False, REDUCE sym_fb_decl 10 0 1381]),
     (9161, [Entry 1 True, REDUCE sym_fb_decl 10 0 1382]),
     (9163, [Entry 1 False, REDUCE sym_fb_decl 10 0 1382]),
     (9165, [Entry 1 True, REDUCE sym_fb_decl 10 0 1383]),
     (9167, [Entry 1 False, REDUCE sym_fb_decl 10 0 1383]),
     (9169, [Entry 1 True, REDUCE sym_fb_decl 10 0 947]),
     (9171, [Entry 1 False, REDUCE sym_fb_decl 10 0 947]),
     (9173, [Entry 1 True, REDUCE sym_fb_decl 10 0 1384]),
     (9175, [Entry 1 False, REDUCE sym_fb_decl 10 0 1384]),
     (9177, [Entry 1 True, REDUCE sym_fb_decl 10 0 1385]),
     (9179, [Entry 1 False, REDUCE sym_fb_decl 10 0 1385]),
     (9181, [Entry 1 True, REDUCE sym_fb_decl 10 0 949]),
     (9183, [Entry 1 False, REDUCE sym_fb_decl 10 0 949]),
     (9185, [Entry 1 True, REDUCE sym_fb_decl 10 0 1386]),
     (9187, [Entry 1 False, REDUCE sym_fb_decl 10 0 1386]),
     (9189, [Entry 1 True, REDUCE sym_fb_decl 10 0 1387]),
     (9191, [Entry 1 False, REDUCE sym_fb_decl 10 0 1387]),
     (9193, [Entry 1 True, REDUCE sym_fb_decl 7 0 429]),
     (9195, [Entry 1 False, REDUCE sym_fb_decl 7 0 429]),
     (9197, [Entry 1 True, REDUCE sym_fb_decl 7 0 430]),
     (9199, [Entry 1 False, REDUCE sym_fb_decl 7 0 430]),
     (9201, [Entry 1 True, REDUCE sym_fb_decl 10 0 1388]),
     (9203, [Entry 1 False, REDUCE sym_fb_decl 10 0 1388]),
     (9205, [Entry 1 True, REDUCE sym_fb_decl 7 0 231]),
     (9207, [Entry 1 False, REDUCE sym_fb_decl 7 0 231]),
     (9209, [Entry 1 True, REDUCE sym_fb_decl 7 0 431]),
     (9211, [Entry 1 False, REDUCE sym_fb_decl 7 0 431]),
     (9213, [Entry 1 True, REDUCE sym_fb_decl 7 0 432]),
     (9215, [Entry 1 False, REDUCE sym_fb_decl 7 0 432]),
     (9217, [Entry 1 True, REDUCE sym_fb_decl 7 0 216])]"

lemma ts_parse_actions_30_tiled: "tiled_from 8919 ts_parse_actions_30 \<and> after_runs 8919 ts_parse_actions_30 = 9219"
  unfolding ts_parse_actions_30_def by (simp cong: runs_weak)

lemma ts_parse_actions_30_ok: "list_all (\<lambda>(i, es). group_ok es) ts_parse_actions_30"
  unfolding ts_parse_actions_30_def
  by (simp add: group_ok_simps entry_action_ok_simps del: One_nat_def group_ok.simps cong: list_all_weak)

text \<open>Lines 485221 to 485370.\<close>

definition ts_parse_actions_31 :: "(nat \<times> TSParseActionEntry list) list" where
  "ts_parse_actions_31 =
    [(9219, [Entry 1 False, REDUCE sym_fb_decl 7 0 216]),
     (9221, [Entry 1 True, REDUCE sym_fb_decl 7 0 393]),
     (9223, [Entry 1 False, REDUCE sym_fb_decl 7 0 393]),
     (9225, [Entry 1 True, REDUCE sym_fb_decl 7 0 433]),
     (9227, [Entry 1 False, REDUCE sym_fb_decl 7 0 433]),
     (9229, [Entry 1 True, REDUCE sym_fb_decl 6 0 181]),
     (9231, [Entry 1 False, REDUCE sym_fb_decl 6 0 181]),
     (9233, [Entry 1 True, REDUCE sym_fb_decl 10 0 1389]),
     (9235, [Entry 1 False, REDUCE sym_fb_decl 10 0 1389]),
     (9237, [Entry 1 True, REDUCE sym_fb_decl 7 0 232]),
     (9239, [Entry 1 False, REDUCE sym_fb_decl 7 0 232]),
     (9241, [Entry 1 True, REDUCE sym_fb_decl 10 0 1390]),
     (9243, [Entry 1 False, REDUCE sym_fb_decl 10 0 1390]),
     (9245, [Entry 1 True, REDUCE sym_fb_decl 10 0 952]),
     (9247, [Entry 1 False, REDUCE sym_fb_decl 10 0 952]),
     (9249, [Entry 1 True, REDUCE sym_fb_decl 10 0 1391]),
     (9251, [Entry 1 False, REDUCE sym_fb_decl 10 0 1391]),
     (9253, [Entry 1 True, REDUCE sym_fb_decl 10 0 1392]),
     (9255, [Entry 1 False, REDUCE sym_fb_decl 10 0 1392]),
     (9257, [Entry 1 True, REDUCE sym_fb_decl 10 0 954]),
     (9259, [Entry 1 False, REDUCE sym_fb_decl 10 0 954]),
     (9261, [Entry 1 True, REDUCE sym_fb_decl 10 0 1393]),
     (9263, [Entry 1 False, REDUCE sym_fb_decl 10 0 1393]),
     (9265, [Entry 1 True, REDUCE sym_fb_decl 10 0 1394]),
     (9267, [Entry 1 False, REDUCE sym_fb_decl 10 0 1394]),
     (9269, [Entry 1 True, REDUCE sym_fb_decl 7 0 434]),
     (9271, [Entry 1 False, REDUCE sym_fb_decl 7 0 434]),
     (9273, [Entry 1 True, REDUCE sym_fb_decl 10 0 955]),
     (9275, [Entry 1 False, REDUCE sym_fb_decl 10 0 955]),
     (9277, [Entry 1 True, REDUCE sym_fb_decl 10 0 1395]),
     (9279, [Entry 1 False, REDUCE sym_fb_decl 10 0 1395]),
     (9281, [Entry 1 True, REDUCE sym_fb_decl 10 0 1396]),
     (9283, [Entry 1 False, REDUCE sym_fb_decl 10 0 1396]),
     (9285, [Entry 1 True, REDUCE sym_fb_decl 10 0 956]),
     (9287, [Entry 1 False, REDUCE sym_fb_decl 10 0 956]),
     (9289, [Entry 1 True, REDUCE sym_fb_decl 10 0 1397]),
     (9291, [Entry 1 False, REDUCE sym_fb_decl 10 0 1397]),
     (9293, [Entry 1 True, REDUCE sym_fb_decl 10 0 1398]),
     (9295, [Entry 1 False, REDUCE sym_fb_decl 10 0 1398]),
     (9297, [Entry 1 True, REDUCE sym_fb_decl 7 0 435]),
     (9299, [Entry 1 False, REDUCE sym_fb_decl 7 0 435]),
     (9301, [Entry 1 True, REDUCE sym_fb_decl 10 0 957]),
     (9303, [Entry 1 False, REDUCE sym_fb_decl 10 0 957]),
     (9305, [Entry 1 True, REDUCE sym_fb_decl 10 0 1399]),
     (9307, [Entry 1 False, REDUCE sym_fb_decl 10 0 1399]),
     (9309, [Entry 1 True, REDUCE sym_fb_decl 10 0 1400]),
     (9311, [Entry 1 False, REDUCE sym_fb_decl 10 0 1400]),
     (9313, [Entry 1 True, REDUCE sym_fb_decl 6 0 153]),
     (9315, [Entry 1 False, REDUCE sym_fb_decl 6 0 153]),
     (9317, [Entry 1 True, REDUCE sym_fb_decl 5 0 77]),
     (9319, [Entry 1 False, REDUCE sym_fb_decl 5 0 77]),
     (9321, [Entry 1 True, REDUCE sym_fb_decl 10 0 1401]),
     (9323, [Entry 1 False, REDUCE sym_fb_decl 10 0 1401]),
     (9325, [Entry 1 True, REDUCE sym_fb_decl 6 0 182]),
     (9327, [Entry 1 False, REDUCE sym_fb_decl 6 0 182]),
     (9329, [Entry 1 True, REDUCE sym_fb_decl 10 0 958]),
     (9331, [Entry 1 False, REDUCE sym_fb_decl 10 0 958]),
     (9333, [Entry 1 True, REDUCE sym_fb_decl 10 0 1402]),
     (9335, [Entry 1 False, REDUCE sym_fb_decl 10 0 1402]),
     (9337, [Entry 1 True, REDUCE sym_fb_decl 10 0 1403]),
     (9339, [Entry 1 False, REDUCE sym_fb_decl 10 0 1403]),
     (9341, [Entry 1 True, REDUCE sym_fb_decl 10 0 1404]),
     (9343, [Entry 1 False, REDUCE sym_fb_decl 10 0 1404]),
     (9345, [Entry 1 True, REDUCE sym_fb_decl 10 0 964]),
     (9347, [Entry 1 False, REDUCE sym_fb_decl 10 0 964]),
     (9349, [Entry 1 True, REDUCE sym_fb_decl 10 0 1405]),
     (9351, [Entry 1 False, REDUCE sym_fb_decl 10 0 1405]),
     (9353, [Entry 1 True, REDUCE sym_fb_decl 10 0 1406]),
     (9355, [Entry 1 False, REDUCE sym_fb_decl 10 0 1406]),
     (9357, [Entry 1 True, REDUCE sym_fb_decl 10 0 966]),
     (9359, [Entry 1 False, REDUCE sym_fb_decl 10 0 966]),
     (9361, [Entry 1 True, REDUCE sym_fb_decl 10 0 1407]),
     (9363, [Entry 1 False, REDUCE sym_fb_decl 10 0 1407]),
     (9365, [Entry 1 True, REDUCE sym_fb_decl 10 0 1408]),
     (9367, [Entry 1 False, REDUCE sym_fb_decl 10 0 1408]),
     (9369, [Entry 1 True, REDUCE sym_config_decl 4 0 34]),
     (9371, [Entry 1 False, REDUCE sym_config_decl 4 0 34]),
     (9373, [Entry 1 True, REDUCE sym_fb_decl 10 0 967]),
     (9375, [Entry 1 False, REDUCE sym_fb_decl 10 0 967]),
     (9377, [Entry 1 True, REDUCE sym_fb_decl 10 0 1409]),
     (9379, [Entry 1 False, REDUCE sym_fb_decl 10 0 1409]),
     (9381, [Entry 1 True, REDUCE sym_fb_decl 10 0 1410]),
     (9383, [Entry 1 False, REDUCE sym_fb_decl 10 0 1410]),
     (9385, [Entry 1 True, REDUCE sym_fb_decl 10 0 968]),
     (9387, [Entry 1 False, REDUCE sym_fb_decl 10 0 968]),
     (9389, [Entry 1 True, REDUCE sym_fb_decl 10 0 1411]),
     (9391, [Entry 1 False, REDUCE sym_fb_decl 10 0 1411]),
     (9393, [Entry 1 True, REDUCE sym_fb_decl 10 0 1412]),
     (9395, [Entry 1 False, REDUCE sym_fb_decl 10 0 1412]),
     (9397, [Entry 1 True, REDUCE sym_fb_decl 9 0 967]),
     (9399, [Entry 1 False, REDUCE sym_fb_decl 9 0 967]),
     (9401, [Entry 1 True, REDUCE sym_fb_decl 10 0 969]),
     (9403, [Entry 1 False, REDUCE sym_fb_decl 10 0 969]),
     (9405, [Entry 1 True, REDUCE sym_fb_decl 10 0 1413]),
     (9407, [Entry 1 False, REDUCE sym_fb_decl 10 0 1413]),
     (9409, [Entry 1 True, REDUCE sym_fb_decl 10 0 1414]),
     (9411, [Entry 1 False, REDUCE sym_fb_decl 10 0 1414]),
     (9413, [Entry 1 True, REDUCE sym_fb_decl 6 0 5]),
     (9415, [Entry 1 False, REDUCE sym_fb_decl 6 0 5]),
     (9417, [Entry 1 True, REDUCE sym_func_decl 8 0 439]),
     (9419, [Entry 1 False, REDUCE sym_func_decl 8 0 439]),
     (9421, [Entry 1 True, REDUCE sym_fb_decl 10 0 1415]),
     (9423, [Entry 1 False, REDUCE sym_fb_decl 10 0 1415]),
     (9425, [Entry 1 True, REDUCE sym_fb_decl 7 0 342]),
     (9427, [Entry 1 False, REDUCE sym_fb_decl 7 0 342]),
     (9429, [Entry 1 True, REDUCE sym_fb_decl 10 0 970]),
     (9431, [Entry 1 False, REDUCE sym_fb_decl 10 0 970]),
     (9433, [Entry 1 True, REDUCE sym_fb_decl 10 0 1416]),
     (9435, [Entry 1 False, REDUCE sym_fb_decl 10 0 1416]),
     (9437, [Entry 1 True, REDUCE sym_fb_decl 10 0 1417]),
     (9439, [Entry 1 False, REDUCE sym_fb_decl 10 0 1417]),
     (9441, [Entry 1 True, REDUCE sym_fb_decl 10 0 1418]),
     (9443, [Entry 1 False, REDUCE sym_fb_decl 10 0 1418]),
     (9445, [Entry 1 True, REDUCE sym_fb_decl 10 0 1419]),
     (9447, [Entry 1 False, REDUCE sym_fb_decl 10 0 1419]),
     (9449, [Entry 1 True, REDUCE sym_fb_decl 10 0 1420]),
     (9451, [Entry 1 False, REDUCE sym_fb_decl 10 0 1420]),
     (9453, [Entry 1 True, REDUCE sym_fb_decl 10 0 980]),
     (9455, [Entry 1 False, REDUCE sym_fb_decl 10 0 980]),
     (9457, [Entry 1 True, REDUCE sym_fb_decl 10 0 1421]),
     (9459, [Entry 1 False, REDUCE sym_fb_decl 10 0 1421]),
     (9461, [Entry 1 True, REDUCE sym_fb_decl 10 0 1422]),
     (9463, [Entry 1 False, REDUCE sym_fb_decl 10 0 1422]),
     (9465, [Entry 1 True, REDUCE sym_fb_decl 9 0 336]),
     (9467, [Entry 1 False, REDUCE sym_fb_decl 9 0 336]),
     (9469, [Entry 1 True, REDUCE sym_class_decl 10 0 983]),
     (9471, [Entry 1 False, REDUCE sym_class_decl 10 0 983]),
     (9473, [Entry 1 True, REDUCE sym_class_decl 10 0 984]),
     (9475, [Entry 1 False, REDUCE sym_class_decl 10 0 984]),
     (9477, [Entry 1 True, REDUCE sym_class_decl 10 0 1423]),
     (9479, [Entry 1 False, REDUCE sym_class_decl 10 0 1423]),
     (9481, [Entry 1 True, REDUCE sym_class_decl 10 0 615]),
     (9483, [Entry 1 False, REDUCE sym_class_decl 10 0 615]),
     (9485, [Entry 1 True, REDUCE sym_class_decl 10 0 1424]),
     (9487, [Entry 1 False, REDUCE sym_class_decl 10 0 1424]),
     (9489, [Entry 1 True, REDUCE sym_fb_decl 9 0 968]),
     (9491, [Entry 1 False, REDUCE sym_fb_decl 9 0 968]),
     (9493, [Entry 1 True, REDUCE sym_class_decl 10 0 1425]),
     (9495, [Entry 1 False, REDUCE sym_class_decl 10 0 1425]),
     (9497, [Entry 1 True, REDUCE sym_class_decl 10 0 985]),
     (9499, [Entry 1 False, REDUCE sym_class_decl 10 0 985]),
     (9501, [Entry 1 True, REDUCE sym_class_decl 10 0 986]),
     (9503, [Entry 1 False, REDUCE sym_class_decl 10 0 986]),
     (9505, [Entry 1 True, REDUCE sym_class_decl 10 0 1426]),
     (9507, [Entry 1 False, REDUCE sym_class_decl 10 0 1426]),
     (9509, [Entry 1 True, REDUCE sym_fb_decl 9 0 524]),
     (9511, [Entry 1 False, REDUCE sym_fb_decl 9 0 524]),
     (9513, [Entry 1 True, REDUCE sym_fb_decl 7 0 5]),
     (9515, [Entry 1 False, REDUCE sym_fb_decl 7 0 5]),
     (9517, [Entry 1 True, REDUCE sym_fb_decl 9 0 969])]"

lemma ts_parse_actions_31_tiled: "tiled_from 9219 ts_parse_actions_31 \<and> after_runs 9219 ts_parse_actions_31 = 9519"
  unfolding ts_parse_actions_31_def by (simp cong: runs_weak)

lemma ts_parse_actions_31_ok: "list_all (\<lambda>(i, es). group_ok es) ts_parse_actions_31"
  unfolding ts_parse_actions_31_def
  by (simp add: group_ok_simps entry_action_ok_simps del: One_nat_def group_ok.simps cong: list_all_weak)

text \<open>Lines 485371 to 485520.\<close>

definition ts_parse_actions_32 :: "(nat \<times> TSParseActionEntry list) list" where
  "ts_parse_actions_32 =
    [(9519, [Entry 1 False, REDUCE sym_fb_decl 9 0 969]),
     (9521, [Entry 1 True, REDUCE sym_class_decl 10 0 1427]),
     (9523, [Entry 1 False, REDUCE sym_class_decl 10 0 1427]),
     (9525, [Entry 1 True, REDUCE sym_class_decl 10 0 987]),
     (9527, [Entry 1 False, REDUCE sym_class_decl 10 0 987]),
     (9529, [Entry 1 True, REDUCE sym_class_decl 10 0 988]),
     (9531, [Entry 1 False, REDUCE sym_class_decl 10 0 988]),
     (9533, [Entry 1 True, REDUCE sym_class_decl 10 0 1428]),
     (9535, [Entry 1 False, REDUCE sym_class_decl 10 0 1428]),
     (9537, [Entry 1 True, REDUCE sym_class_decl 10 0 989]),
     (9539, [Entry 1 False, REDUCE sym_class_decl 10 0 989]),
     (9541, [Entry 1 True, REDUCE sym_class_decl 10 0 990]),
     (9543, [Entry 1 False, REDUCE sym_class_decl 10 0 990]),
     (9545, [Entry 1 True, REDUCE sym_class_decl 10 0 991]),
     (9547, [Entry 1 False, REDUCE sym_class_decl 10 0 991]),
     (9549, [Entry 1 True, REDUCE sym_class_decl 10 0 1429]),
     (9551, [Entry 1 False, REDUCE sym_class_decl 10 0 1429]),
     (9553, [Entry 1 True, REDUCE sym_class_decl 10 0 992]),
     (9555, [Entry 1 False, REDUCE sym_class_decl 10 0 992]),
     (9557, [Entry 1 True, REDUCE sym_class_decl 10 0 993]),
     (9559, [Entry 1 False, REDUCE sym_class_decl 10 0 993]),
     (9561, [Entry 1 True, REDUCE sym_class_decl 10 0 1430]),
     (9563, [Entry 1 False, REDUCE sym_class_decl 10 0 1430]),
     (9565, [Entry 1 True, REDUCE sym_fb_decl 7 0 343]),
     (9567, [Entry 1 False, REDUCE sym_fb_decl 7 0 343]),
     (9569, [Entry 1 True, REDUCE sym_class_decl 3 0 5]),
     (9571, [Entry 1 False, REDUCE sym_class_decl 3 0 5]),
     (9573, [Entry 1 True, REDUCE sym_fb_decl 9 0 547]),
     (9575, [Entry 1 False, REDUCE sym_fb_decl 9 0 547]),
     (9577, [Entry 1 True, REDUCE sym_class_decl 10 0 1431]),
     (9579, [Entry 1 False, REDUCE sym_class_decl 10 0 1431]),
     (9581, [Entry 1 True, REDUCE sym_class_decl 10 0 994]),
     (9583, [Entry 1 False, REDUCE sym_class_decl 10 0 994]),
     (9585, [Entry 1 True, REDUCE sym_class_decl 10 0 1432]),
     (9587, [Entry 1 False, REDUCE sym_class_decl 10 0 1432]),
     (9589, [Entry 1 True, REDUCE sym_fb_decl 9 0 970]),
     (9591, [Entry 1 False, REDUCE sym_fb_decl 9 0 970]),
     (9593, [Entry 1 True, REDUCE sym_fb_decl 7 0 344]),
     (9595, [Entry 1 False, REDUCE sym_fb_decl 7 0 344]),
     (9597, [Entry 1 True, REDUCE sym_fb_decl 9 0 596]),
     (9599, [Entry 1 False, REDUCE sym_fb_decl 9 0 596]),
     (9601, [Entry 1 True, REDUCE sym_class_decl 10 0 995]),
     (9603, [Entry 1 False, REDUCE sym_class_decl 10 0 995]),
     (9605, [Entry 1 True, REDUCE sym_class_decl 10 0 1433]),
     (9607, [Entry 1 False, REDUCE sym_class_decl 10 0 1433]),
     (9609, [Entry 1 True, REDUCE sym_class_decl 10 0 357]),
     (9611, [Entry 1 False, REDUCE sym_class_decl 10 0 357]),
     (9613, [Entry 1 True, REDUCE sym_class_decl 10 0 1434]),
     (9615, [Entry 1 False, REDUCE sym_class_decl 10 0 1434]),
     (9617, [Entry 1 True, REDUCE sym_fb_decl 9 0 971]),
     (9619, [Entry 1 False, REDUCE sym_fb_decl 9 0 971]),
     (9621, [Entry 1 True, REDUCE sym_class_decl 10 0 1435]),
     (9623, [Entry 1 False, REDUCE sym_class_decl 10 0 1435]),
     (9625, [Entry 1 True, REDUCE sym_class_decl 10 0 996]),
     (9627, [Entry 1 False, REDUCE sym_class_decl 10 0 996]),
     (9629, [Entry 1 True, REDUCE sym_class_decl 10 0 997]),
     (9631, [Entry 1 False, REDUCE sym_class_decl 10 0 997]),
     (9633, [Entry 1 True, REDUCE sym_class_decl 10 0 1436]),
     (9635, [Entry 1 False, REDUCE sym_class_decl 10 0 1436]),
     (9637, [Entry 1 True, REDUCE sym_class_decl 10 0 623]),
     (9639, [Entry 1 False, REDUCE sym_class_decl 10 0 623]),
     (9641, [Entry 1 True, REDUCE sym_class_decl 10 0 1437]),
     (9643, [Entry 1 False, REDUCE sym_class_decl 10 0 1437]),
     (9645, [Entry 1 True, REDUCE sym_fb_decl 9 0 972]),
     (9647, [Entry 1 False, REDUCE sym_fb_decl 9 0 972]),
     (9649, [Entry 1 True, REDUCE sym_class_decl 10 0 1438]),
     (9651, [Entry 1 False, REDUCE sym_class_decl 10 0 1438]),
     (9653, [Entry 1 True, REDUCE sym_class_decl 10 0 998]),
     (9655, [Entry 1 False, REDUCE sym_class_decl 10 0 998]),
     (9657, [Entry 1 True, REDUCE sym_class_decl 10 0 999]),
     (9659, [Entry 1 False, REDUCE sym_class_decl 10 0 999]),
     (9661, [Entry 1 True, REDUCE sym_class_decl 10 0 1000]),
     (9663, [Entry 1 False, REDUCE sym_class_decl 10 0 1000]),
     (9665, [Entry 1 True, REDUCE sym_class_decl 10 0 1001]),
     (9667, [Entry 1 False, REDUCE sym_class_decl 10 0 1001]),
     (9669, [Entry 1 True, REDUCE sym_class_decl 10 0 1439]),
     (9671, [Entry 1 False, REDUCE sym_class_decl 10 0 1439]),
     (9673, [Entry 1 True, REDUCE sym_class_decl 10 0 1002]),
     (9675, [Entry 1 False, REDUCE sym_class_decl 10 0 1002]),
     (9677, [Entry 1 True, REDUCE sym_class_decl 10 0 1003]),
     (9679, [Entry 1 False, REDUCE sym_class_decl 10 0 1003]),
     (9681, [Entry 1 True, REDUCE sym_class_decl 10 0 1440]),
     (9683, [Entry 1 False, REDUCE sym_class_decl 10 0 1440]),
     (9685, [Entry 1 True, REDUCE sym_fb_decl 9 0 973]),
     (9687, [Entry 1 False, REDUCE sym_fb_decl 9 0 973]),
     (9689, [Entry 1 True, REDUCE sym_fb_decl 9 0 601]),
     (9691, [Entry 1 False, REDUCE sym_fb_decl 9 0 601]),
     (9693, [Entry 1 True, REDUCE sym_fb_decl 9 0 974]),
     (9695, [Entry 1 False, REDUCE sym_fb_decl 9 0 974]),
     (9697, [Entry 1 True, REDUCE sym_class_decl 10 0 1441]),
     (9699, [Entry 1 False, REDUCE sym_class_decl 10 0 1441]),
     (9701, [Entry 1 True, REDUCE sym_class_decl 10 0 1004]),
     (9703, [Entry 1 False, REDUCE sym_class_decl 10 0 1004]),
     (9705, [Entry 1 True, REDUCE sym_class_decl 10 0 1442]),
     (9707, [Entry 1 False, REDUCE sym_class_decl 10 0 1442]),
     (9709, [Entry 1 True, REDUCE sym_fb_decl 9 0 975]),
     (9711, [Entry 1 False, REDUCE sym_fb_decl 9 0 975]),
     (9713, [Entry 1 True, REDUCE sym_fb_decl 9 0 976]),
     (9715, [Entry 1 False, REDUCE sym_fb_decl 9 0 976]),
     (9717, [Entry 1 True, REDUCE sym_fb_decl 9 0 605]),
     (9719, [Entry 1 False, REDUCE sym_fb_decl 9 0 605]),
     (9721, [Entry 1 True, REDUCE sym_class_decl 10 0 1005]),
     (9723, [Entry 1 False, REDUCE sym_class_decl 10 0 1005]),
     (9725, [Entry 1 True, REDUCE sym_class_decl 10 0 1443]),
     (9727, [Entry 1 False, REDUCE sym_class_decl 10 0 1443]),
     (9729, [Entry 1 True, REDUCE sym_class_decl 10 0 362]),
     (9731, [Entry 1 False, REDUCE sym_class_decl 10 0 362]),
     (9733, [Entry 1 True, REDUCE sym_class_decl 10 0 1444]),
     (9735, [Entry 1 False, REDUCE sym_class_decl 10 0 1444]),
     (9737, [Entry 1 True, REDUCE sym_fb_decl 9 0 977]),
     (9739, [Entry 1 False, REDUCE sym_fb_decl 9 0 977]),
     (9741, [Entry 1 True, REDUCE sym_class_decl 10 0 1445]),
     (9743, [Entry 1 False, REDUCE sym_class_decl 10 0 1445]),
     (9745, [Entry 1 True, REDUCE sym_class_decl 10 0 1006]),
     (9747, [Entry 1 False, REDUCE sym_class_decl 10 0 1006]),
     (9749, [Entry 1 True, REDUCE sym_class_decl 10 0 1007]),
     (9751, [Entry 1 False, REDUCE sym_class_decl 10 0 1007]),
     (9753, [Entry 1 True, REDUCE sym_class_decl 10 0 1446]),
     (9755, [Entry 1 False, REDUCE sym_class_decl 10 0 1446]),
     (9757, [Entry 1 True, REDUCE sym_class_decl 10 0 631]),
     (9759, [Entry 1 False, REDUCE sym_class_decl 10 0 631]),
     (9761, [Entry 1 True, REDUCE sym_class_decl 10 0 1447]),
     (9763, [Entry 1 False, REDUCE sym_class_decl 10 0 1447]),
     (9765, [Entry 1 True, REDUCE sym_fb_decl 9 0 978]),
     (9767, [Entry 1 False, REDUCE sym_fb_decl 9 0 978]),
     (9769, [Entry 1 True, REDUCE sym_class_decl 10 0 1448]),
     (9771, [Entry 1 False, REDUCE sym_class_decl 10 0 1448]),
     (9773, [Entry 1 True, REDUCE sym_class_decl 10 0 1008]),
     (9775, [Entry 1 False, REDUCE sym_class_decl 10 0 1008]),
     (9777, [Entry 1 True, REDUCE sym_class_decl 10 0 1449]),
     (9779, [Entry 1 False, REDUCE sym_class_decl 10 0 1449]),
     (9781, [Entry 1 True, REDUCE sym_fb_decl 9 0 607]),
     (9783, [Entry 1 False, REDUCE sym_fb_decl 9 0 607]),
     (9785, [Entry 1 True, REDUCE sym_fb_decl 6 0 183]),
     (9787, [Entry 1 False, REDUCE sym_fb_decl 6 0 183]),
     (9789, [Entry 1 True, REDUCE sym_fb_decl 9 0 979]),
     (9791, [Entry 1 False, REDUCE sym_fb_decl 9 0 979]),
     (9793, [Entry 1 True, REDUCE sym_class_decl 10 0 1009]),
     (9795, [Entry 1 False, REDUCE sym_class_decl 10 0 1009]),
     (9797, [Entry 1 True, REDUCE sym_class_decl 10 0 1450]),
     (9799, [Entry 1 False, REDUCE sym_class_decl 10 0 1450]),
     (9801, [Entry 1 True, REDUCE sym_namespace_decl 4 0 36]),
     (9803, [Entry 1 False, REDUCE sym_namespace_decl 4 0 36]),
     (9805, [Entry 1 True, REDUCE sym_class_decl 10 0 632]),
     (9807, [Entry 1 False, REDUCE sym_class_decl 10 0 632]),
     (9809, [Entry 1 True, REDUCE sym_class_decl 10 0 1451]),
     (9811, [Entry 1 False, REDUCE sym_class_decl 10 0 1451]),
     (9813, [Entry 1 True, REDUCE sym_fb_decl 9 0 980]),
     (9815, [Entry 1 False, REDUCE sym_fb_decl 9 0 980]),
     (9817, [Entry 1 True, REDUCE sym_fb_decl 9 0 894])]"

lemma ts_parse_actions_32_tiled: "tiled_from 9519 ts_parse_actions_32 \<and> after_runs 9519 ts_parse_actions_32 = 9819"
  unfolding ts_parse_actions_32_def by (simp cong: runs_weak)

lemma ts_parse_actions_32_ok: "list_all (\<lambda>(i, es). group_ok es) ts_parse_actions_32"
  unfolding ts_parse_actions_32_def
  by (simp add: group_ok_simps entry_action_ok_simps del: One_nat_def group_ok.simps cong: list_all_weak)

text \<open>Lines 485521 to 485670.\<close>

definition ts_parse_actions_33 :: "(nat \<times> TSParseActionEntry list) list" where
  "ts_parse_actions_33 =
    [(9819, [Entry 1 False, REDUCE sym_fb_decl 9 0 894]),
     (9821, [Entry 1 True, REDUCE sym_fb_decl 9 0 608]),
     (9823, [Entry 1 False, REDUCE sym_fb_decl 9 0 608]),
     (9825, [Entry 1 True, REDUCE sym_class_decl 10 0 1452]),
     (9827, [Entry 1 False, REDUCE sym_class_decl 10 0 1452]),
     (9829, [Entry 1 True, REDUCE sym_class_decl 10 0 1010]),
     (9831, [Entry 1 False, REDUCE sym_class_decl 10 0 1010]),
     (9833, [Entry 1 True, REDUCE sym_class_decl 10 0 1011]),
     (9835, [Entry 1 False, REDUCE sym_class_decl 10 0 1011]),
     (9837, [Entry 1 True, REDUCE sym_class_decl 10 0 1453]),
     (9839, [Entry 1 False, REDUCE sym_class_decl 10 0 1453]),
     (9841, [Entry 1 True, REDUCE sym_fb_decl 9 0 981]),
     (9843, [Entry 1 False, REDUCE sym_fb_decl 9 0 981]),
     (9845, [Entry 1 True, REDUCE sym_fb_decl 9 0 982]),
     (9847, [Entry 1 False, REDUCE sym_fb_decl 9 0 982]),
     (9849, [Entry 1 True, REDUCE sym_class_decl 9 0 612]),
     (9851, [Entry 1 False, REDUCE sym_class_decl 9 0 612]),
     (9853, [Entry 1 True, REDUCE sym_class_decl 10 0 1454]),
     (9855, [Entry 1 False, REDUCE sym_class_decl 10 0 1454]),
     (9857, [Entry 1 True, REDUCE sym_class_decl 10 0 1012]),
     (9859, [Entry 1 False, REDUCE sym_class_decl 10 0 1012]),
     (9861, [Entry 1 True, REDUCE sym_class_decl 10 0 1013]),
     (9863, [Entry 1 False, REDUCE sym_class_decl 10 0 1013]),
     (9865, [Entry 1 True, REDUCE sym_class_decl 10 0 1455]),
     (9867, [Entry 1 False, REDUCE sym_class_decl 10 0 1455]),
     (9869, [Entry 1 True, REDUCE sym_class_decl 10 0 1014]),
     (9871, [Entry 1 False, REDUCE sym_class_decl 10 0 1014]),
     (9873, [Entry 1 True, REDUCE sym_class_decl 10 0 1015]),
     (9875, [Entry 1 False, REDUCE sym_class_decl 10 0 1015]),
     (9877, [Entry 1 True, REDUCE sym_class_decl 10 0 897]),
     (9879, [Entry 1 False, REDUCE sym_class_decl 10 0 897]),
     (9881, [Entry 1 True, REDUCE sym_class_decl 10 0 1456]),
     (9883, [Entry 1 False, REDUCE sym_class_decl 10 0 1456]),
     (9885, [Entry 1 True, REDUCE sym_class_decl 10 0 1016]),
     (9887, [Entry 1 False, REDUCE sym_class_decl 10 0 1016]),
     (9889, [Entry 1 True, REDUCE sym_class_decl 10 0 906]),
     (9891, [Entry 1 False, REDUCE sym_class_decl 10 0 906]),
     (9893, [Entry 1 True, REDUCE sym_class_decl 10 0 1457]),
     (9895, [Entry 1 False, REDUCE sym_class_decl 10 0 1457]),
     (9897, [Entry 1 True, REDUCE sym_class_decl 10 0 555]),
     (9899, [Entry 1 False, REDUCE sym_class_decl 10 0 555]),
     (9901, [Entry 1 True, REDUCE sym_class_decl 10 0 1344]),
     (9903, [Entry 1 False, REDUCE sym_class_decl 10 0 1344]),
     (9905, [Entry 1 True, REDUCE sym_class_decl 9 0 613]),
     (9907, [Entry 1 False, REDUCE sym_class_decl 9 0 613]),
     (9909, [Entry 1 True, REDUCE sym_class_decl 10 0 1458]),
     (9911, [Entry 1 False, REDUCE sym_class_decl 10 0 1458]),
     (9913, [Entry 1 True, REDUCE sym_class_decl 10 0 1017]),
     (9915, [Entry 1 False, REDUCE sym_class_decl 10 0 1017]),
     (9917, [Entry 1 True, REDUCE sym_class_decl 10 0 1018]),
     (9919, [Entry 1 False, REDUCE sym_class_decl 10 0 1018]),
     (9921, [Entry 1 True, REDUCE sym_class_decl 10 0 1019]),
     (9923, [Entry 1 False, REDUCE sym_class_decl 10 0 1019]),
     (9925, [Entry 1 True, REDUCE sym_class_decl 10 0 940]),
     (9927, [Entry 1 False, REDUCE sym_class_decl 10 0 940]),
     (9929, [Entry 1 True, REDUCE sym_class_decl 10 0 1459]),
     (9931, [Entry 1 False, REDUCE sym_class_decl 10 0 1459]),
     (9933, [Entry 1 True, REDUCE sym_class_decl 10 0 578]),
     (9935, [Entry 1 False, REDUCE sym_class_decl 10 0 578]),
     (9937, [Entry 1 True, REDUCE sym_class_decl 10 0 1378]),
     (9939, [Entry 1 False, REDUCE sym_class_decl 10 0 1378]),
     (9941, [Entry 1 True, REDUCE sym_class_decl 9 0 983]),
     (9943, [Entry 1 False, REDUCE sym_class_decl 9 0 983]),
     (9945, [Entry 1 True, REDUCE sym_class_decl 10 0 1460]),
     (9947, [Entry 1 False, REDUCE sym_class_decl 10 0 1460]),
     (9949, [Entry 1 True, REDUCE sym_class_decl 10 0 1020]),
     (9951, [Entry 1 False, REDUCE sym_class_decl 10 0 1020]),
     (9953, [Entry 1 True, REDUCE sym_class_decl 10 0 949]),
     (9955, [Entry 1 False, REDUCE sym_class_decl 10 0 949]),
     (9957, [Entry 1 True, REDUCE sym_class_decl 10 0 1387]),
     (9959, [Entry 1 False, REDUCE sym_class_decl 10 0 1387]),
     (9961, [Entry 1 True, REDUCE sym_class_decl 9 0 614]),
     (9963, [Entry 1 False, REDUCE sym_class_decl 9 0 614]),
     (9965, [Entry 1 True, REDUCE sym_class_decl 9 0 615]),
     (9967, [Entry 1 False, REDUCE sym_class_decl 9 0 615]),
     (9969, [Entry 1 True, REDUCE sym_class_decl 9 0 984]),
     (9971, [Entry 1 False, REDUCE sym_class_decl 9 0 984]),
     (9973, [Entry 1 True, REDUCE sym_class_decl 10 0 1461]),
     (9975, [Entry 1 False, REDUCE sym_class_decl 10 0 1461]),
     (9977, [Entry 1 True, REDUCE sym_class_decl 10 0 1021]),
     (9979, [Entry 1 False, REDUCE sym_class_decl 10 0 1021]),
     (9981, [Entry 1 True, REDUCE sym_class_decl 10 0 956]),
     (9983, [Entry 1 False, REDUCE sym_class_decl 10 0 956]),
     (9985, [Entry 1 True, REDUCE sym_class_decl 10 0 1462]),
     (9987, [Entry 1 False, REDUCE sym_class_decl 10 0 1462]),
     (9989, [Entry 1 True, REDUCE sym_class_decl 10 0 1022]),
     (9991, [Entry 1 False, REDUCE sym_class_decl 10 0 1022]),
     (9993, [Entry 1 True, REDUCE sym_class_decl 10 0 1023]),
     (9995, [Entry 1 False, REDUCE sym_class_decl 10 0 1023]),
     (9997, [Entry 1 True, REDUCE sym_class_decl 10 0 968]),
     (9999, [Entry 1 False, REDUCE sym_class_decl 10 0 968]),
     (10001, [Entry 1 True, REDUCE sym_class_decl 10 0 1463]),
     (10003, [Entry 1 False, REDUCE sym_class_decl 10 0 1463]),
     (10005, [Entry 1 True, REDUCE sym_class_decl 10 0 1024]),
     (10007, [Entry 1 False, REDUCE sym_class_decl 10 0 1024]),
     (10009, [Entry 1 True, REDUCE sym_class_decl 10 0 1025]),
     (10011, [Entry 1 False, REDUCE sym_class_decl 10 0 1025]),
     (10013, [Entry 1 True, REDUCE sym_class_decl 10 0 1026]),
     (10015, [Entry 1 False, REDUCE sym_class_decl 10 0 1026]),
     (10017, [Entry 1 True, REDUCE sym_class_decl 10 0 1464]),
     (10019, [Entry 1 False, REDUCE sym_class_decl 10 0 1464]),
     (10021, [Entry 1 True, REDUCE sym_class_decl 10 0 649]),
     (10023, [Entry 1 False, REDUCE sym_class_decl 10 0 649]),
     (10025, [Entry 1 True, REDUCE sym_class_decl 10 0 1465]),
     (10027, [Entry 1 False, REDUCE sym_class_decl 10 0 1465]),
     (10029, [Entry 1 True, REDUCE sym_fb_decl 9 0 895]),
     (10031, [Entry 1 False, REDUCE sym_fb_decl 9 0 895]),
     (10033, [Entry 1 True, REDUCE sym_class_decl 10 0 1466]),
     (10035, [Entry 1 False, REDUCE sym_class_decl 10 0 1466]),
     (10037, [Entry 1 True, REDUCE sym_class_decl 10 0 1027]),
     (10039, [Entry 1 False, REDUCE sym_class_decl 10 0 1027]),
     (10041, [Entry 1 True, REDUCE sym_class_decl 10 0 1028]),
     (10043, [Entry 1 False, REDUCE sym_class_decl 10 0 1028]),
     (10045, [Entry 1 True, REDUCE sym_class_decl 10 0 1467]),
     (10047, [Entry 1 False, REDUCE sym_class_decl 10 0 1467]),
     (10049, [Entry 1 True, REDUCE sym_fb_decl 7 0 175]),
     (10051, [Entry 1 False, REDUCE sym_fb_decl 7 0 175]),
     (10053, [Entry 1 True, REDUCE sym_fb_decl 7 0 322]),
     (10055, [Entry 1 False, REDUCE sym_fb_decl 7 0 322]),
     (10057, [Entry 1 True, REDUCE sym_class_decl 9 0 985]),
     (10059, [Entry 1 False, REDUCE sym_class_decl 9 0 985]),
     (10061, [Entry 1 True, REDUCE sym_class_decl 10 0 1468]),
     (10063, [Entry 1 False, REDUCE sym_class_decl 10 0 1468]),
     (10065, [Entry 1 True, REDUCE sym_class_decl 10 0 1029]),
     (10067, [Entry 1 False, REDUCE sym_class_decl 10 0 1029]),
     (10069, [Entry 1 True, REDUCE sym_class_decl 10 0 1030]),
     (10071, [Entry 1 False, REDUCE sym_class_decl 10 0 1030]),
     (10073, [Entry 1 True, REDUCE sym_class_decl 10 0 1469]),
     (10075, [Entry 1 False, REDUCE sym_class_decl 10 0 1469]),
     (10077, [Entry 1 True, REDUCE sym_class_decl 10 0 1031]),
     (10079, [Entry 1 False, REDUCE sym_class_decl 10 0 1031]),
     (10081, [Entry 1 True, REDUCE sym_class_decl 10 0 1032]),
     (10083, [Entry 1 False, REDUCE sym_class_decl 10 0 1032]),
     (10085, [Entry 1 True, REDUCE sym_class_decl 10 0 1033]),
     (10087, [Entry 1 False, REDUCE sym_class_decl 10 0 1033]),
     (10089, [Entry 1 True, REDUCE sym_class_decl 10 0 1470]),
     (10091, [Entry 1 False, REDUCE sym_class_decl 10 0 1470]),
     (10093, [Entry 1 True, REDUCE sym_class_decl 10 0 1034]),
     (10095, [Entry 1 False, REDUCE sym_class_decl 10 0 1034]),
     (10097, [Entry 1 True, REDUCE sym_class_decl 10 0 1035]),
     (10099, [Entry 1 False, REDUCE sym_class_decl 10 0 1035]),
     (10101, [Entry 1 True, REDUCE sym_class_decl 10 0 1471]),
     (10103, [Entry 1 False, REDUCE sym_class_decl 10 0 1471]),
     (10105, [Entry 1 True, REDUCE sym_class_decl 9 0 616]),
     (10107, [Entry 1 False, REDUCE sym_class_decl 9 0 616]),
     (10109, [Entry 1 True, REDUCE sym_class_decl 9 0 986]),
     (10111, [Entry 1 False, REDUCE sym_class_decl 9 0 986]),
     (10113, [Entry 1 True, REDUCE sym_fb_decl 9 0 896]),
     (10115, [Entry 1 False, REDUCE sym_fb_decl 9 0 896]),
     (10117, [Entry 1 True, REDUCE sym_class_decl 10 0 1472])]"

lemma ts_parse_actions_33_tiled: "tiled_from 9819 ts_parse_actions_33 \<and> after_runs 9819 ts_parse_actions_33 = 10119"
  unfolding ts_parse_actions_33_def by (simp cong: runs_weak)

lemma ts_parse_actions_33_ok: "list_all (\<lambda>(i, es). group_ok es) ts_parse_actions_33"
  unfolding ts_parse_actions_33_def
  by (simp add: group_ok_simps entry_action_ok_simps del: One_nat_def group_ok.simps cong: list_all_weak)

text \<open>Lines 485671 to 485820.\<close>

definition ts_parse_actions_34 :: "(nat \<times> TSParseActionEntry list) list" where
  "ts_parse_actions_34 =
    [(10119, [Entry 1 False, REDUCE sym_class_decl 10 0 1472]),
     (10121, [Entry 1 True, REDUCE sym_class_decl 10 0 1036]),
     (10123, [Entry 1 False, REDUCE sym_class_decl 10 0 1036]),
     (10125, [Entry 1 True, REDUCE sym_class_decl 10 0 1473]),
     (10127, [Entry 1 False, REDUCE sym_class_decl 10 0 1473]),
     (10129, [Entry 1 True, REDUCE sym_fb_decl 7 0 323]),
     (10131, [Entry 1 False, REDUCE sym_fb_decl 7 0 323]),
     (10133, [Entry 1 True, REDUCE sym_fb_decl 9 0 311]),
     (10135, [Entry 1 False, REDUCE sym_fb_decl 9 0 311]),
     (10137, [Entry 1 True, REDUCE sym_class_decl 9 0 617]),
     (10139, [Entry 1 False, REDUCE sym_class_decl 9 0 617]),
     (10141, [Entry 1 True, REDUCE sym_class_decl 10 0 1037]),
     (10143, [Entry 1 False, REDUCE sym_class_decl 10 0 1037]),
     (10145, [Entry 1 True, REDUCE sym_class_decl 10 0 1474]),
     (10147, [Entry 1 False, REDUCE sym_class_decl 10 0 1474]),
     (10149, [Entry 1 True, REDUCE sym_class_decl 10 0 379]),
     (10151, [Entry 1 False, REDUCE sym_class_decl 10 0 379]),
     (10153, [Entry 1 True, REDUCE sym_class_decl 10 0 1475]),
     (10155, [Entry 1 False, REDUCE sym_class_decl 10 0 1475]),
     (10157, [Entry 1 True, REDUCE sym_class_decl 9 0 987]),
     (10159, [Entry 1 False, REDUCE sym_class_decl 9 0 987]),
     (10161, [Entry 1 True, REDUCE sym_class_decl 10 0 1476]),
     (10163, [Entry 1 False, REDUCE sym_class_decl 10 0 1476]),
     (10165, [Entry 1 True, REDUCE sym_class_decl 10 0 1038]),
     (10167, [Entry 1 False, REDUCE sym_class_decl 10 0 1038]),
     (10169, [Entry 1 True, REDUCE sym_class_decl 10 0 1039]),
     (10171, [Entry 1 False, REDUCE sym_class_decl 10 0 1039]),
     (10173, [Entry 1 True, REDUCE sym_class_decl 10 0 1477]),
     (10175, [Entry 1 False, REDUCE sym_class_decl 10 0 1477]),
     (10177, [Entry 1 True, REDUCE sym_class_decl 10 0 657]),
     (10179, [Entry 1 False, REDUCE sym_class_decl 10 0 657]),
     (10181, [Entry 1 True, REDUCE sym_class_decl 10 0 1478]),
     (10183, [Entry 1 False, REDUCE sym_class_decl 10 0 1478]),
     (10185, [Entry 1 True, REDUCE sym_class_decl 9 0 194]),
     (10187, [Entry 1 False, REDUCE sym_class_decl 9 0 194]),
     (10189, [Entry 1 True, REDUCE sym_class_decl 10 0 1479]),
     (10191, [Entry 1 False, REDUCE sym_class_decl 10 0 1479]),
     (10193, [Entry 1 True, REDUCE sym_class_decl 10 0 1040]),
     (10195, [Entry 1 False, REDUCE sym_class_decl 10 0 1040]),
     (10197, [Entry 1 True, REDUCE sym_class_decl 10 0 1041]),
     (10199, [Entry 1 False, REDUCE sym_class_decl 10 0 1041]),
     (10201, [Entry 1 True, REDUCE sym_func_decl 10 0 1482]),
     (10203, [Entry 1 False, REDUCE sym_func_decl 10 0 1482]),
     (10205, [Entry 1 True, REDUCE sym_fb_decl 10 0 1483]),
     (10207, [Entry 1 False, REDUCE sym_fb_decl 10 0 1483]),
     (10209, [Entry 1 True, REDUCE sym_fb_decl 10 0 1056]),
     (10211, [Entry 1 False, REDUCE sym_fb_decl 10 0 1056]),
     (10213, [Entry 1 True, REDUCE sym_fb_decl 10 0 1484]),
     (10215, [Entry 1 False, REDUCE sym_fb_decl 10 0 1484]),
     (10217, [Entry 1 True, REDUCE sym_fb_decl 10 0 1485]),
     (10219, [Entry 1 False, REDUCE sym_fb_decl 10 0 1485]),
     (10221, [Entry 1 True, REDUCE sym_fb_decl 10 0 1058]),
     (10223, [Entry 1 False, REDUCE sym_fb_decl 10 0 1058]),
     (10225, [Entry 1 True, REDUCE sym_fb_decl 10 0 1486]),
     (10227, [Entry 1 False, REDUCE sym_fb_decl 10 0 1486]),
     (10229, [Entry 1 True, REDUCE sym_fb_decl 10 0 1487]),
     (10231, [Entry 1 False, REDUCE sym_fb_decl 10 0 1487]),
     (10233, [Entry 1 True, REDUCE sym_fb_decl 6 0 184]),
     (10235, [Entry 1 False, REDUCE sym_fb_decl 6 0 184]),
     (10237, [Entry 1 True, REDUCE sym_fb_decl 10 0 1059]),
     (10239, [Entry 1 False, REDUCE sym_fb_decl 10 0 1059]),
     (10241, [Entry 1 True, REDUCE sym_fb_decl 10 0 1488]),
     (10243, [Entry 1 False, REDUCE sym_fb_decl 10 0 1488]),
     (10245, [Entry 1 True, REDUCE sym_fb_decl 10 0 1489]),
     (10247, [Entry 1 False, REDUCE sym_fb_decl 10 0 1489]),
     (10249, [Entry 1 True, REDUCE sym_fb_decl 10 0 1060]),
     (10251, [Entry 1 False, REDUCE sym_fb_decl 10 0 1060]),
     (10253, [Entry 1 True, REDUCE sym_fb_decl 10 0 1490]),
     (10255, [Entry 1 False, REDUCE sym_fb_decl 10 0 1490]),
     (10257, [Entry 1 True, REDUCE sym_fb_decl 10 0 1491]),
     (10259, [Entry 1 False, REDUCE sym_fb_decl 10 0 1491]),
     (10261, [Entry 1 True, REDUCE sym_class_decl 9 0 988]),
     (10263, [Entry 1 False, REDUCE sym_class_decl 9 0 988]),
     (10265, [Entry 1 True, REDUCE sym_fb_decl 10 0 1061]),
     (10267, [Entry 1 False, REDUCE sym_fb_decl 10 0 1061]),
     (10269, [Entry 1 True, REDUCE sym_fb_decl 10 0 1492]),
     (10271, [Entry 1 False, REDUCE sym_fb_decl 10 0 1492]),
     (10273, [Entry 1 True, REDUCE sym_fb_decl 10 0 1493]),
     (10275, [Entry 1 False, REDUCE sym_fb_decl 10 0 1493]),
     (10277, [Entry 1 True, REDUCE sym_fb_decl 9 0 897]),
     (10279, [Entry 1 False, REDUCE sym_fb_decl 9 0 897]),
     (10281, [Entry 1 True, REDUCE sym_namespace_decl 4 0 37]),
     (10283, [Entry 1 False, REDUCE sym_namespace_decl 4 0 37]),
     (10285, [Entry 1 True, REDUCE sym_fb_decl 10 0 1494]),
     (10287, [Entry 1 False, REDUCE sym_fb_decl 10 0 1494]),
     (10289, [Entry 1 True, REDUCE sym_namespace_decl 4 0 25]),
     (10291, [Entry 1 False, REDUCE sym_namespace_decl 4 0 25]),
     (10293, [Entry 1 True, REDUCE sym_fb_decl 10 0 1062]),
     (10295, [Entry 1 False, REDUCE sym_fb_decl 10 0 1062]),
     (10297, [Entry 1 True, REDUCE sym_fb_decl 10 0 1495]),
     (10299, [Entry 1 False, REDUCE sym_fb_decl 10 0 1495]),
     (10301, [Entry 1 True, REDUCE sym_fb_decl 10 0 1496]),
     (10303, [Entry 1 False, REDUCE sym_fb_decl 10 0 1496]),
     (10305, [Entry 1 True, REDUCE sym_fb_decl 10 0 1064]),
     (10307, [Entry 1 False, REDUCE sym_fb_decl 10 0 1064]),
     (10309, [Entry 1 True, REDUCE sym_fb_decl 10 0 1497]),
     (10311, [Entry 1 False, REDUCE sym_fb_decl 10 0 1497]),
     (10313, [Entry 1 True, REDUCE sym_fb_decl 10 0 1498]),
     (10315, [Entry 1 False, REDUCE sym_fb_decl 10 0 1498]),
     (10317, [Entry 1 True, REDUCE sym_fb_decl 5 0 78]),
     (10319, [Entry 1 False, REDUCE sym_fb_decl 5 0 78]),
     (10321, [Entry 1 True, REDUCE sym_class_decl 9 0 989]),
     (10323, [Entry 1 False, REDUCE sym_class_decl 9 0 989]),
     (10325, [Entry 1 True, REDUCE sym_fb_decl 10 0 1499]),
     (10327, [Entry 1 False, REDUCE sym_fb_decl 10 0 1499]),
     (10329, [Entry 1 True, REDUCE sym_fb_decl 5 0 26]),
     (10331, [Entry 1 False, REDUCE sym_fb_decl 5 0 26]),
     (10333, [Entry 1 True, REDUCE sym_class_decl 9 0 618]),
     (10335, [Entry 1 False, REDUCE sym_class_decl 9 0 618]),
     (10337, [Entry 1 True, REDUCE sym_fb_decl 6 0 185]),
     (10339, [Entry 1 False, REDUCE sym_fb_decl 6 0 185]),
     (10341, [Entry 1 True, REDUCE sym_fb_decl 5 0 65]),
     (10343, [Entry 1 False, REDUCE sym_fb_decl 5 0 65]),
     (10345, [Entry 1 True, REDUCE sym_fb_decl 6 0 78]),
     (10347, [Entry 1 False, REDUCE sym_fb_decl 6 0 78]),
     (10349, [Entry 1 True, REDUCE sym_fb_decl 6 0 186]),
     (10351, [Entry 1 False, REDUCE sym_fb_decl 6 0 186]),
     (10353, [Entry 1 True, REDUCE sym_class_decl 9 0 619]),
     (10355, [Entry 1 False, REDUCE sym_class_decl 9 0 619]),
     (10357, [Entry 1 True, REDUCE sym_fb_decl 10 0 1500]),
     (10359, [Entry 1 False, REDUCE sym_fb_decl 10 0 1500]),
     (10361, [Entry 1 True, REDUCE sym_fb_decl 6 0 187]),
     (10363, [Entry 1 False, REDUCE sym_fb_decl 6 0 187]),
     (10365, [Entry 1 True, REDUCE sym_fb_decl 10 0 1501]),
     (10367, [Entry 1 False, REDUCE sym_fb_decl 10 0 1501]),
     (10369, [Entry 1 True, REDUCE sym_fb_decl 10 0 1067]),
     (10371, [Entry 1 False, REDUCE sym_fb_decl 10 0 1067]),
     (10373, [Entry 1 True, REDUCE sym_fb_decl 10 0 1502]),
     (10375, [Entry 1 False, REDUCE sym_fb_decl 10 0 1502]),
     (10377, [Entry 1 True, REDUCE sym_fb_decl 10 0 1503]),
     (10379, [Entry 1 False, REDUCE sym_fb_decl 10 0 1503]),
     (10381, [Entry 1 True, REDUCE sym_fb_decl 10 0 1069]),
     (10383, [Entry 1 False, REDUCE sym_fb_decl 10 0 1069]),
     (10385, [Entry 1 True, REDUCE sym_fb_decl 10 0 1504]),
     (10387, [Entry 1 False, REDUCE sym_fb_decl 10 0 1504]),
     (10389, [Entry 1 True, REDUCE sym_fb_decl 10 0 1505]),
     (10391, [Entry 1 False, REDUCE sym_fb_decl 10 0 1505]),
     (10393, [Entry 1 True, REDUCE sym_fb_decl 6 0 79]),
     (10395, [Entry 1 False, REDUCE sym_fb_decl 6 0 79]),
     (10397, [Entry 1 True, REDUCE sym_fb_decl 10 0 1070]),
     (10399, [Entry 1 False, REDUCE sym_fb_decl 10 0 1070]),
     (10401, [Entry 1 True, REDUCE sym_fb_decl 10 0 1506]),
     (10403, [Entry 1 False, REDUCE sym_fb_decl 10 0 1506]),
     (10405, [Entry 1 True, REDUCE sym_fb_decl 10 0 1507]),
     (10407, [Entry 1 False, REDUCE sym_fb_decl 10 0 1507]),
     (10409, [Entry 1 True, REDUCE sym_fb_decl 6 0 188]),
     (10411, [Entry 1 False, REDUCE sym_fb_decl 6 0 188]),
     (10413, [Entry 1 True, REDUCE sym_fb_decl 6 0 189]),
     (10415, [Entry 1 False, REDUCE sym_fb_decl 6 0 189]),
     (10417, [Entry 1 True, REDUCE sym_fb_decl 6 0 64])]"

lemma ts_parse_actions_34_tiled: "tiled_from 10119 ts_parse_actions_34 \<and> after_runs 10119 ts_parse_actions_34 = 10419"
  unfolding ts_parse_actions_34_def by (simp cong: runs_weak)

lemma ts_parse_actions_34_ok: "list_all (\<lambda>(i, es). group_ok es) ts_parse_actions_34"
  unfolding ts_parse_actions_34_def
  by (simp add: group_ok_simps entry_action_ok_simps del: One_nat_def group_ok.simps cong: list_all_weak)

text \<open>Lines 485821 to 485970.\<close>

definition ts_parse_actions_35 :: "(nat \<times> TSParseActionEntry list) list" where
  "ts_parse_actions_35 =
    [(10419, [Entry 1 False, REDUCE sym_fb_decl 6 0 64]),
     (10421, [Entry 1 True, REDUCE sym_fb_decl 6 0 148]),
     (10423, [Entry 1 False, REDUCE sym_fb_decl 6 0 148]),
     (10425, [Entry 1 True, REDUCE sym_fb_decl 6 0 190]),
     (10427, [Entry 1 False, REDUCE sym_fb_decl 6 0 190]),
     (10429, [Entry 1 True, REDUCE sym_fb_decl 10 0 1508]),
     (10431, [Entry 1 False, REDUCE sym_fb_decl 10 0 1508]),
     (10433, [Entry 1 True, REDUCE sym_fb_decl 10 0 1071]),
     (10435, [Entry 1 False, REDUCE sym_fb_decl 10 0 1071]),
     (10437, [Entry 1 True, REDUCE sym_fb_decl 10 0 1509]),
     (10439, [Entry 1 False, REDUCE sym_fb_decl 10 0 1509]),
     (10441, [Entry 1 True, REDUCE sym_fb_decl 10 0 1510]),
     (10443, [Entry 1 False, REDUCE sym_fb_decl 10 0 1510]),
     (10445, [Entry 1 True, REDUCE sym_class_decl 9 0 990]),
     (10447, [Entry 1 False, REDUCE sym_class_decl 9 0 990]),
     (10449, [Entry 1 True, REDUCE sym_fb_decl 10 0 1072]),
     (10451, [Entry 1 False, REDUCE sym_fb_decl 10 0 1072]),
     (10453, [Entry 1 True, REDUCE sym_fb_decl 10 0 1511]),
     (10455, [Entry 1 False, REDUCE sym_fb_decl 10 0 1511]),
     (10457, [Entry 1 True, REDUCE sym_fb_decl 10 0 1512]),
     (10459, [Entry 1 False, REDUCE sym_fb_decl 10 0 1512]),
     (10461, [Entry 1 True, REDUCE sym_fb_decl 5 0 79]),
     (10463, [Entry 1 False, REDUCE sym_fb_decl 5 0 79]),
     (10465, [Entry 1 True, REDUCE sym_class_decl 9 0 356]),
     (10467, [Entry 1 False, REDUCE sym_class_decl 9 0 356]),
     (10469, [Entry 1 True, REDUCE sym_fb_decl 10 0 1513]),
     (10471, [Entry 1 False, REDUCE sym_fb_decl 10 0 1513]),
     (10473, [Entry 1 True, REDUCE sym_fb_decl 6 0 80]),
     (10475, [Entry 1 False, REDUCE sym_fb_decl 6 0 80]),
     (10477, [Entry 1 True, REDUCE sym_fb_decl 10 0 399]),
     (10479, [Entry 1 False, REDUCE sym_fb_decl 10 0 399]),
     (10481, [Entry 1 True, REDUCE sym_fb_decl 10 0 1514]),
     (10483, [Entry 1 False, REDUCE sym_fb_decl 10 0 1514]),
     (10485, [Entry 1 True, REDUCE sym_class_decl 9 0 991]),
     (10487, [Entry 1 False, REDUCE sym_class_decl 9 0 991]),
     (10489, [Entry 1 True, REDUCE sym_fb_decl 9 0 877]),
     (10491, [Entry 1 False, REDUCE sym_fb_decl 9 0 877]),
     (10493, [Entry 1 True, REDUCE sym_fb_decl 10 0 1515]),
     (10495, [Entry 1 False, REDUCE sym_fb_decl 10 0 1515]),
     (10497, [Entry 1 True, REDUCE sym_class_decl 9 0 992]),
     (10499, [Entry 1 False, REDUCE sym_class_decl 9 0 992]),
     (10501, [Entry 1 True, REDUCE sym_fb_decl 6 0 191]),
     (10503, [Entry 1 False, REDUCE sym_fb_decl 6 0 191]),
     (10505, [Entry 1 True, REDUCE sym_fb_decl 6 0 192]),
     (10507, [Entry 1 False, REDUCE sym_fb_decl 6 0 192]),
     (10509, [Entry 1 True, REDUCE sym_fb_decl 10 0 1516]),
     (10511, [Entry 1 False, REDUCE sym_fb_decl 10 0 1516]),
     (10513, [Entry 1 True, REDUCE sym_class_decl 9 0 620]),
     (10515, [Entry 1 False, REDUCE sym_class_decl 9 0 620]),
     (10517, [Entry 1 True, REDUCE sym_fb_decl 10 0 1073]),
     (10519, [Entry 1 False, REDUCE sym_fb_decl 10 0 1073]),
     (10521, [Entry 1 True, REDUCE sym_fb_decl 10 0 1517]),
     (10523, [Entry 1 False, REDUCE sym_fb_decl 10 0 1517]),
     (10525, [Entry 1 True, REDUCE sym_fb_decl 10 0 1518]),
     (10527, [Entry 1 False, REDUCE sym_fb_decl 10 0 1518]),
     (10529, [Entry 1 True, REDUCE sym_fb_decl 10 0 1519]),
     (10531, [Entry 1 False, REDUCE sym_fb_decl 10 0 1519]),
     (10533, [Entry 1 True, REDUCE sym_fb_decl 10 0 1076]),
     (10535, [Entry 1 False, REDUCE sym_fb_decl 10 0 1076]),
     (10537, [Entry 1 True, REDUCE sym_fb_decl 10 0 1520]),
     (10539, [Entry 1 False, REDUCE sym_fb_decl 10 0 1520]),
     (10541, [Entry 1 True, REDUCE sym_fb_decl 10 0 1521]),
     (10543, [Entry 1 False, REDUCE sym_fb_decl 10 0 1521]),
     (10545, [Entry 1 True, REDUCE sym_class_decl 6 0 193]),
     (10547, [Entry 1 False, REDUCE sym_class_decl 6 0 193]),
     (10549, [Entry 1 True, REDUCE sym_fb_decl 10 0 1077]),
     (10551, [Entry 1 False, REDUCE sym_fb_decl 10 0 1077]),
     (10553, [Entry 1 True, REDUCE sym_fb_decl 10 0 1522]),
     (10555, [Entry 1 False, REDUCE sym_fb_decl 10 0 1522]),
     (10557, [Entry 1 True, REDUCE sym_fb_decl 10 0 1523]),
     (10559, [Entry 1 False, REDUCE sym_fb_decl 10 0 1523]),
     (10561, [Entry 1 True, REDUCE sym_class_decl 9 0 993]),
     (10563, [Entry 1 False, REDUCE sym_class_decl 9 0 993]),
     (10565, [Entry 1 True, REDUCE sym_fb_decl 9 0 878]),
     (10567, [Entry 1 False, REDUCE sym_fb_decl 9 0 878]),
     (10569, [Entry 1 True, REDUCE sym_fb_decl 10 0 1524]),
     (10571, [Entry 1 False, REDUCE sym_fb_decl 10 0 1524]),
     (10573, [Entry 1 True, REDUCE sym_fb_decl 6 0 154]),
     (10575, [Entry 1 False, REDUCE sym_fb_decl 6 0 154]),
     (10577, [Entry 1 True, REDUCE sym_fb_decl 10 0 685]),
     (10579, [Entry 1 False, REDUCE sym_fb_decl 10 0 685]),
     (10581, [Entry 1 True, REDUCE sym_fb_decl 10 0 1525]),
     (10583, [Entry 1 False, REDUCE sym_fb_decl 10 0 1525]),
     (10585, [Entry 1 True, REDUCE sym_fb_decl 9 0 898]),
     (10587, [Entry 1 False, REDUCE sym_fb_decl 9 0 898]),
     (10589, [Entry 1 True, REDUCE sym_class_decl 9 0 621]),
     (10591, [Entry 1 False, REDUCE sym_class_decl 9 0 621]),
     (10593, [Entry 1 True, REDUCE sym_fb_decl 10 0 1526]),
     (10595, [Entry 1 False, REDUCE sym_fb_decl 10 0 1526]),
     (10597, [Entry 1 True, REDUCE sym_class_decl 9 0 994]),
     (10599, [Entry 1 False, REDUCE sym_class_decl 9 0 994]),
     (10601, [Entry 1 True, REDUCE sym_class_decl 6 0 194]),
     (10603, [Entry 1 False, REDUCE sym_class_decl 6 0 194]),
     (10605, [Entry 1 True, REDUCE sym_fb_decl 7 0 345]),
     (10607, [Entry 1 False, REDUCE sym_fb_decl 7 0 345]),
     (10609, [Entry 1 True, REDUCE sym_fb_decl 10 0 1527]),
     (10611, [Entry 1 False, REDUCE sym_fb_decl 10 0 1527]),
     (10613, [Entry 1 True, REDUCE sym_fb_decl 5 0 25]),
     (10615, [Entry 1 False, REDUCE sym_fb_decl 5 0 25]),
     (10617, [Entry 1 True, REDUCE sym_fb_decl 10 0 1078]),
     (10619, [Entry 1 False, REDUCE sym_fb_decl 10 0 1078]),
     (10621, [Entry 1 True, REDUCE sym_fb_decl 10 0 1528]),
     (10623, [Entry 1 False, REDUCE sym_fb_decl 10 0 1528]),
     (10625, [Entry 1 True, REDUCE sym_fb_decl 10 0 1529]),
     (10627, [Entry 1 False, REDUCE sym_fb_decl 10 0 1529]),
     (10629, [Entry 1 True, REDUCE sym_fb_decl 5 0 63]),
     (10631, [Entry 1 False, REDUCE sym_fb_decl 5 0 63]),
     (10633, [Entry 1 True, REDUCE sym_class_decl 9 0 357]),
     (10635, [Entry 1 False, REDUCE sym_class_decl 9 0 357]),
     (10637, [Entry 1 True, REDUCE sym_fb_decl 5 0 64]),
     (10639, [Entry 1 False, REDUCE sym_fb_decl 5 0 64]),
     (10641, [Entry 1 True, REDUCE sym_class_decl 9 0 995]),
     (10643, [Entry 1 False, REDUCE sym_class_decl 9 0 995]),
     (10645, [Entry 1 True, REDUCE sym_class_decl 6 0 30]),
     (10647, [Entry 1 False, REDUCE sym_class_decl 6 0 30]),
     (10649, [Entry 1 True, REDUCE sym_fb_decl 10 0 1530]),
     (10651, [Entry 1 False, REDUCE sym_fb_decl 10 0 1530]),
     (10653, [Entry 1 True, REDUCE sym_fb_decl 10 0 1080]),
     (10655, [Entry 1 False, REDUCE sym_fb_decl 10 0 1080]),
     (10657, [Entry 1 True, REDUCE sym_fb_decl 10 0 1531]),
     (10659, [Entry 1 False, REDUCE sym_fb_decl 10 0 1531]),
     (10661, [Entry 1 True, REDUCE sym_fb_decl 10 0 1532]),
     (10663, [Entry 1 False, REDUCE sym_fb_decl 10 0 1532]),
     (10665, [Entry 1 True, REDUCE sym_class_decl 6 0 195]),
     (10667, [Entry 1 False, REDUCE sym_class_decl 6 0 195]),
     (10669, [Entry 1 True, REDUCE sym_fb_decl 10 0 1081]),
     (10671, [Entry 1 False, REDUCE sym_fb_decl 10 0 1081]),
     (10673, [Entry 1 True, REDUCE sym_fb_decl 10 0 1533]),
     (10675, [Entry 1 False, REDUCE sym_fb_decl 10 0 1533]),
     (10677, [Entry 1 True, REDUCE sym_fb_decl 10 0 1534]),
     (10679, [Entry 1 False, REDUCE sym_fb_decl 10 0 1534]),
     (10681, [Entry 1 True, REDUCE sym_fb_decl 7 0 324]),
     (10683, [Entry 1 False, REDUCE sym_fb_decl 7 0 324]),
     (10685, [Entry 1 True, REDUCE sym_fb_decl 9 0 879]),
     (10687, [Entry 1 False, REDUCE sym_fb_decl 9 0 879]),
     (10689, [Entry 1 True, REDUCE sym_fb_decl 10 0 1535]),
     (10691, [Entry 1 False, REDUCE sym_fb_decl 10 0 1535]),
     (10693, [Entry 1 True, REDUCE sym_fb_decl 9 0 880]),
     (10695, [Entry 1 False, REDUCE sym_fb_decl 9 0 880]),
     (10697, [Entry 1 True, REDUCE sym_class_decl 9 0 996]),
     (10699, [Entry 1 False, REDUCE sym_class_decl 9 0 996]),
     (10701, [Entry 1 True, REDUCE sym_fb_decl 10 0 686]),
     (10703, [Entry 1 False, REDUCE sym_fb_decl 10 0 686]),
     (10705, [Entry 1 True, REDUCE sym_fb_decl 10 0 1536]),
     (10707, [Entry 1 False, REDUCE sym_fb_decl 10 0 1536]),
     (10709, [Entry 1 True, REDUCE sym_class_decl 9 0 622]),
     (10711, [Entry 1 False, REDUCE sym_class_decl 9 0 622]),
     (10713, [Entry 1 True, REDUCE sym_class_decl 9 0 623]),
     (10715, [Entry 1 False, REDUCE sym_class_decl 9 0 623]),
     (10717, [Entry 1 True, REDUCE sym_fb_decl 10 0 1537])]"

lemma ts_parse_actions_35_tiled: "tiled_from 10419 ts_parse_actions_35 \<and> after_runs 10419 ts_parse_actions_35 = 10719"
  unfolding ts_parse_actions_35_def by (simp cong: runs_weak)

lemma ts_parse_actions_35_ok: "list_all (\<lambda>(i, es). group_ok es) ts_parse_actions_35"
  unfolding ts_parse_actions_35_def
  by (simp add: group_ok_simps entry_action_ok_simps del: One_nat_def group_ok.simps cong: list_all_weak)

text \<open>Lines 485971 to 486120.\<close>

definition ts_parse_actions_36 :: "(nat \<times> TSParseActionEntry list) list" where
  "ts_parse_actions_36 =
    [(10719, [Entry 1 False, REDUCE sym_fb_decl 10 0 1537]),
     (10721, [Entry 1 True, REDUCE sym_class_decl 6 0 196]),
     (10723, [Entry 1 False, REDUCE sym_class_decl 6 0 196]),
     (10725, [Entry 1 True, REDUCE sym_class_decl 6 0 82]),
     (10727, [Entry 1 False, REDUCE sym_class_decl 6 0 82]),
     (10729, [Entry 1 True, REDUCE sym_class_decl 6 0 197]),
     (10731, [Entry 1 False, REDUCE sym_class_decl 6 0 197]),
     (10733, [Entry 1 True, REDUCE sym_func_decl 8 0 477]),
     (10735, [Entry 1 False, REDUCE sym_func_decl 8 0 477]),
     (10737, [Entry 1 True, REDUCE sym_func_decl 8 0 478]),
     (10739, [Entry 1 False, REDUCE sym_func_decl 8 0 478]),
     (10741, [Entry 1 True, REDUCE sym_func_decl 8 0 479]),
     (10743, [Entry 1 False, REDUCE sym_func_decl 8 0 479]),
     (10745, [Entry 1 True, REDUCE sym_fb_decl 8 0 480]),
     (10747, [Entry 1 False, REDUCE sym_fb_decl 8 0 480]),
     (10749, [Entry 1 True, REDUCE sym_fb_decl 10 0 1538]),
     (10751, [Entry 1 False, REDUCE sym_fb_decl 10 0 1538]),
     (10753, [Entry 1 True, REDUCE sym_fb_decl 8 0 275]),
     (10755, [Entry 1 False, REDUCE sym_fb_decl 8 0 275]),
     (10757, [Entry 1 True, REDUCE sym_fb_decl 10 0 1082]),
     (10759, [Entry 1 False, REDUCE sym_fb_decl 10 0 1082]),
     (10761, [Entry 1 True, REDUCE sym_fb_decl 10 0 1539]),
     (10763, [Entry 1 False, REDUCE sym_fb_decl 10 0 1539]),
     (10765, [Entry 1 True, REDUCE sym_fb_decl 10 0 1540]),
     (10767, [Entry 1 False, REDUCE sym_fb_decl 10 0 1540]),
     (10769, [Entry 1 True, REDUCE sym_fb_decl 10 0 1541]),
     (10771, [Entry 1 False, REDUCE sym_fb_decl 10 0 1541]),
     (10773, [Entry 1 True, REDUCE sym_fb_decl 10 0 1087]),
     (10775, [Entry 1 False, REDUCE sym_fb_decl 10 0 1087]),
     (10777, [Entry 1 True, REDUCE sym_fb_decl 10 0 1542]),
     (10779, [Entry 1 False, REDUCE sym_fb_decl 10 0 1542]),
     (10781, [Entry 1 True, REDUCE sym_fb_decl 10 0 1543]),
     (10783, [Entry 1 False, REDUCE sym_fb_decl 10 0 1543]),
     (10785, [Entry 1 True, REDUCE sym_fb_decl 10 0 1089]),
     (10787, [Entry 1 False, REDUCE sym_fb_decl 10 0 1089]),
     (10789, [Entry 1 True, REDUCE sym_fb_decl 10 0 1544]),
     (10791, [Entry 1 False, REDUCE sym_fb_decl 10 0 1544]),
     (10793, [Entry 1 True, REDUCE sym_fb_decl 10 0 1545]),
     (10795, [Entry 1 False, REDUCE sym_fb_decl 10 0 1545]),
     (10797, [Entry 1 True, REDUCE sym_fb_decl 8 0 481]),
     (10799, [Entry 1 False, REDUCE sym_fb_decl 8 0 481]),
     (10801, [Entry 1 True, REDUCE sym_fb_decl 8 0 482]),
     (10803, [Entry 1 False, REDUCE sym_fb_decl 8 0 482]),
     (10805, [Entry 1 True, REDUCE sym_fb_decl 10 0 1546]),
     (10807, [Entry 1 False, REDUCE sym_fb_decl 10 0 1546]),
     (10809, [Entry 1 True, REDUCE sym_fb_decl 5 0 80]),
     (10811, [Entry 1 False, REDUCE sym_fb_decl 5 0 80]),
     (10813, [Entry 1 True, REDUCE sym_fb_decl 8 0 276]),
     (10815, [Entry 1 False, REDUCE sym_fb_decl 8 0 276]),
     (10817, [Entry 1 True, REDUCE sym_fb_decl 8 0 483]),
     (10819, [Entry 1 False, REDUCE sym_fb_decl 8 0 483]),
     (10821, [Entry 1 True, REDUCE sym_fb_decl 8 0 484]),
     (10823, [Entry 1 False, REDUCE sym_fb_decl 8 0 484]),
     (10825, [Entry 1 True, REDUCE sym_func_decl 4 0 38]),
     (10827, [Entry 1 False, REDUCE sym_func_decl 4 0 38]),
     (10829, [Entry 1 True, REDUCE sym_class_decl 6 0 83]),
     (10831, [Entry 1 False, REDUCE sym_class_decl 6 0 83]),
     (10833, [Entry 1 True, REDUCE sym_fb_decl 8 0 485]),
     (10835, [Entry 1 False, REDUCE sym_fb_decl 8 0 485]),
     (10837, [Entry 1 True, REDUCE sym_fb_decl 10 0 1547]),
     (10839, [Entry 1 False, REDUCE sym_fb_decl 10 0 1547]),
     (10841, [Entry 1 True, REDUCE sym_class_decl 9 0 997]),
     (10843, [Entry 1 False, REDUCE sym_class_decl 9 0 997]),
     (10845, [Entry 1 True, REDUCE sym_fb_decl 10 0 1548]),
     (10847, [Entry 1 False, REDUCE sym_fb_decl 10 0 1548]),
     (10849, [Entry 1 True, REDUCE sym_fb_decl 10 0 1092]),
     (10851, [Entry 1 False, REDUCE sym_fb_decl 10 0 1092]),
     (10853, [Entry 1 True, REDUCE sym_fb_decl 10 0 1549]),
     (10855, [Entry 1 False, REDUCE sym_fb_decl 10 0 1549]),
     (10857, [Entry 1 True, REDUCE sym_fb_decl 10 0 1550]),
     (10859, [Entry 1 False, REDUCE sym_fb_decl 10 0 1550]),
     (10861, [Entry 1 True, REDUCE sym_fb_decl 10 0 1094]),
     (10863, [Entry 1 False, REDUCE sym_fb_decl 10 0 1094]),
     (10865, [Entry 1 True, REDUCE sym_fb_decl 10 0 1551]),
     (10867, [Entry 1 False, REDUCE sym_fb_decl 10 0 1551]),
     (10869, [Entry 1 True, REDUCE sym_fb_decl 10 0 1552]),
     (10871, [Entry 1 False, REDUCE sym_fb_decl 10 0 1552]),
     (10873, [Entry 1 True, REDUCE sym_fb_decl 8 0 153]),
     (10875, [Entry 1 False, REDUCE sym_fb_decl 8 0 153]),
     (10877, [Entry 1 True, REDUCE sym_fb_decl 10 0 1095]),
     (10879, [Entry 1 False, REDUCE sym_fb_decl 10 0 1095]),
     (10881, [Entry 1 True, REDUCE sym_fb_decl 10 0 1553]),
     (10883, [Entry 1 False, REDUCE sym_fb_decl 10 0 1553]),
     (10885, [Entry 1 True, REDUCE sym_fb_decl 10 0 1554]),
     (10887, [Entry 1 False, REDUCE sym_fb_decl 10 0 1554]),
     (10889, [Entry 1 True, REDUCE sym_fb_decl 10 0 1096]),
     (10891, [Entry 1 False, REDUCE sym_fb_decl 10 0 1096]),
     (10893, [Entry 1 True, REDUCE sym_fb_decl 10 0 1555]),
     (10895, [Entry 1 False, REDUCE sym_fb_decl 10 0 1555]),
     (10897, [Entry 1 True, REDUCE sym_fb_decl 10 0 1556]),
     (10899, [Entry 1 False, REDUCE sym_fb_decl 10 0 1556]),
     (10901, [Entry 1 True, REDUCE sym_fb_decl 8 0 486]),
     (10903, [Entry 1 False, REDUCE sym_fb_decl 8 0 486]),
     (10905, [Entry 1 True, REDUCE sym_fb_decl 10 0 1097]),
     (10907, [Entry 1 False, REDUCE sym_fb_decl 10 0 1097]),
     (10909, [Entry 1 True, REDUCE sym_fb_decl 10 0 1557]),
     (10911, [Entry 1 False, REDUCE sym_fb_decl 10 0 1557]),
     (10913, [Entry 1 True, REDUCE sym_fb_decl 10 0 1558]),
     (10915, [Entry 1 False, REDUCE sym_fb_decl 10 0 1558]),
     (10917, [Entry 1 True, REDUCE sym_fb_decl 9 0 899]),
     (10919, [Entry 1 False, REDUCE sym_fb_decl 9 0 899]),
     (10921, [Entry 1 True, REDUCE sym_fb_decl 9 0 881]),
     (10923, [Entry 1 False, REDUCE sym_fb_decl 9 0 881]),
     (10925, [Entry 1 True, REDUCE sym_fb_decl 10 0 1559]),
     (10927, [Entry 1 False, REDUCE sym_fb_decl 10 0 1559]),
     (10929, [Entry 1 True, REDUCE sym_fb_decl 8 0 487]),
     (10931, [Entry 1 False, REDUCE sym_fb_decl 8 0 487]),
     (10933, [Entry 1 True, REDUCE sym_fb_decl 10 0 1098]),
     (10935, [Entry 1 False, REDUCE sym_fb_decl 10 0 1098]),
     (10937, [Entry 1 True, REDUCE sym_fb_decl 10 0 1560]),
     (10939, [Entry 1 False, REDUCE sym_fb_decl 10 0 1560]),
     (10941, [Entry 1 True, REDUCE sym_fb_decl 10 0 1561]),
     (10943, [Entry 1 False, REDUCE sym_fb_decl 10 0 1561]),
     (10945, [Entry 1 True, REDUCE sym_fb_decl 10 0 1562]),
     (10947, [Entry 1 False, REDUCE sym_fb_decl 10 0 1562]),
     (10949, [Entry 1 True, REDUCE sym_fb_decl 10 0 1563]),
     (10951, [Entry 1 False, REDUCE sym_fb_decl 10 0 1563]),
     (10953, [Entry 1 True, REDUCE sym_fb_decl 10 0 1564]),
     (10955, [Entry 1 False, REDUCE sym_fb_decl 10 0 1564]),
     (10957, [Entry 1 True, REDUCE sym_fb_decl 10 0 1109]),
     (10959, [Entry 1 False, REDUCE sym_fb_decl 10 0 1109]),
     (10961, [Entry 1 True, REDUCE sym_fb_decl 10 0 1565]),
     (10963, [Entry 1 False, REDUCE sym_fb_decl 10 0 1565]),
     (10965, [Entry 1 True, REDUCE sym_fb_decl 10 0 1566]),
     (10967, [Entry 1 False, REDUCE sym_fb_decl 10 0 1566]),
     (10969, [Entry 1 True, REDUCE sym_fb_decl 10 0 1567]),
     (10971, [Entry 1 False, REDUCE sym_fb_decl 10 0 1567]),
     (10973, [Entry 1 True, REDUCE sym_fb_decl 10 0 1113]),
     (10975, [Entry 1 False, REDUCE sym_fb_decl 10 0 1113]),
     (10977, [Entry 1 True, REDUCE sym_fb_decl 10 0 1568]),
     (10979, [Entry 1 False, REDUCE sym_fb_decl 10 0 1568]),
     (10981, [Entry 1 True, REDUCE sym_fb_decl 10 0 1569]),
     (10983, [Entry 1 False, REDUCE sym_fb_decl 10 0 1569]),
     (10985, [Entry 1 True, REDUCE sym_fb_decl 10 0 1115]),
     (10987, [Entry 1 False, REDUCE sym_fb_decl 10 0 1115]),
     (10989, [Entry 1 True, REDUCE sym_fb_decl 10 0 1570]),
     (10991, [Entry 1 False, REDUCE sym_fb_decl 10 0 1570]),
     (10993, [Entry 1 True, REDUCE sym_fb_decl 10 0 1571]),
     (10995, [Entry 1 False, REDUCE sym_fb_decl 10 0 1571]),
     (10997, [Entry 1 True, REDUCE sym_fb_decl 9 0 548]),
     (10999, [Entry 1 False, REDUCE sym_fb_decl 9 0 548]),
     (11001, [Entry 1 True, REDUCE sym_fb_decl 10 0 1116]),
     (11003, [Entry 1 False, REDUCE sym_fb_decl 10 0 1116]),
     (11005, [Entry 1 True, REDUCE sym_fb_decl 10 0 1572]),
     (11007, [Entry 1 False, REDUCE sym_fb_decl 10 0 1572]),
     (11009, [Entry 1 True, REDUCE sym_fb_decl 10 0 1573]),
     (11011, [Entry 1 False, REDUCE sym_fb_decl 10 0 1573]),
     (11013, [Entry 1 True, REDUCE sym_fb_decl 10 0 1574]),
     (11015, [Entry 1 False, REDUCE sym_fb_decl 10 0 1574]),
     (11017, [Entry 1 True, REDUCE sym_fb_decl 10 0 1120])]"

lemma ts_parse_actions_36_tiled: "tiled_from 10719 ts_parse_actions_36 \<and> after_runs 10719 ts_parse_actions_36 = 11019"
  unfolding ts_parse_actions_36_def by (simp cong: runs_weak)

lemma ts_parse_actions_36_ok: "list_all (\<lambda>(i, es). group_ok es) ts_parse_actions_36"
  unfolding ts_parse_actions_36_def
  by (simp add: group_ok_simps entry_action_ok_simps del: One_nat_def group_ok.simps cong: list_all_weak)

text \<open>Lines 486121 to 486270.\<close>

definition ts_parse_actions_37 :: "(nat \<times> TSParseActionEntry list) list" where
  "ts_parse_actions_37 =
    [(11019, [Entry 1 False, REDUCE sym_fb_decl 10 0 1120]),
     (11021, [Entry 1 True, REDUCE sym_fb_decl 10 0 1575]),
     (11023, [Entry 1 False, REDUCE sym_fb_decl 10 0 1575]),
     (11025, [Entry 1 True, REDUCE sym_fb_decl 10 0 1576]),
     (11027, [Entry 1 False, REDUCE sym_fb_decl 10 0 1576]),
     (11029, [Entry 1 True, REDUCE sym_class_decl 6 0 198]),
     (11031, [Entry 1 False, REDUCE sym_class_decl 6 0 198]),
     (11033, [Entry 1 True, REDUCE sym_fb_decl 10 0 1121]),
     (11035, [Entry 1 False, REDUCE sym_fb_decl 10 0 1121]),
     (11037, [Entry 1 True, REDUCE sym_fb_decl 10 0 1577]),
     (11039, [Entry 1 False, REDUCE sym_fb_decl 10 0 1577]),
     (11041, [Entry 1 True, REDUCE sym_fb_decl 10 0 1578]),
     (11043, [Entry 1 False, REDUCE sym_fb_decl 10 0 1578]),
     (11045, [Entry 1 True, REDUCE sym_class_decl 9 0 998]),
     (11047, [Entry 1 False, REDUCE sym_class_decl 9 0 998]),
     (11049, [Entry 1 True, REDUCE sym_fb_decl 8 0 488]),
     (11051, [Entry 1 False, REDUCE sym_fb_decl 8 0 488]),
     (11053, [Entry 1 True, REDUCE sym_fb_decl 10 0 1579]),
     (11055, [Entry 1 False, REDUCE sym_fb_decl 10 0 1579]),
     (11057, [Entry 1 True, REDUCE sym_class_decl 6 0 199]),
     (11059, [Entry 1 False, REDUCE sym_class_decl 6 0 199]),
     (11061, [Entry 1 True, REDUCE sym_fb_decl 10 0 714]),
     (11063, [Entry 1 False, REDUCE sym_fb_decl 10 0 714]),
     (11065, [Entry 1 True, REDUCE sym_fb_decl 10 0 1580]),
     (11067, [Entry 1 False, REDUCE sym_fb_decl 10 0 1580]),
     (11069, [Entry 1 True, REDUCE sym_fb_decl 8 0 277]),
     (11071, [Entry 1 False, REDUCE sym_fb_decl 8 0 277]),
     (11073, [Entry 1 True, REDUCE sym_fb_decl 8 0 489]),
     (11075, [Entry 1 False, REDUCE sym_fb_decl 8 0 489]),
     (11077, [Entry 1 True, REDUCE sym_fb_decl 10 0 1581]),
     (11079, [Entry 1 False, REDUCE sym_fb_decl 10 0 1581]),
     (11081, [Entry 1 True, REDUCE sym_fb_decl 8 0 490]),
     (11083, [Entry 1 False, REDUCE sym_fb_decl 8 0 490]),
     (11085, [Entry 1 True, REDUCE sym_class_decl 6 0 84]),
     (11087, [Entry 1 False, REDUCE sym_class_decl 6 0 84]),
     (11089, [Entry 1 True, REDUCE sym_class_decl 6 0 73]),
     (11091, [Entry 1 False, REDUCE sym_class_decl 6 0 73]),
     (11093, [Entry 1 True, REDUCE sym_fb_decl 10 0 1582]),
     (11095, [Entry 1 False, REDUCE sym_fb_decl 10 0 1582]),
     (11097, [Entry 1 True, REDUCE sym_class_decl 6 0 166]),
     (11099, [Entry 1 False, REDUCE sym_class_decl 6 0 166]),
     (11101, [Entry 1 True, REDUCE sym_fb_decl 10 0 1122]),
     (11103, [Entry 1 False, REDUCE sym_fb_decl 10 0 1122]),
     (11105, [Entry 1 True, REDUCE sym_fb_decl 10 0 1583]),
     (11107, [Entry 1 False, REDUCE sym_fb_decl 10 0 1583]),
     (11109, [Entry 1 True, REDUCE sym_fb_decl 10 0 1584]),
     (11111, [Entry 1 False, REDUCE sym_fb_decl 10 0 1584]),
     (11113, [Entry 1 True, REDUCE sym_fb_decl 10 0 1585]),
     (11115, [Entry 1 False, REDUCE sym_fb_decl 10 0 1585]),
     (11117, [Entry 1 True, REDUCE sym_fb_decl 10 0 1127]),
     (11119, [Entry 1 False, REDUCE sym_fb_decl 10 0 1127]),
     (11121, [Entry 1 True, REDUCE sym_fb_decl 10 0 1586]),
     (11123, [Entry 1 False, REDUCE sym_fb_decl 10 0 1586]),
     (11125, [Entry 1 True, REDUCE sym_fb_decl 10 0 1587]),
     (11127, [Entry 1 False, REDUCE sym_fb_decl 10 0 1587]),
     (11129, [Entry 1 True, REDUCE sym_fb_decl 10 0 1129]),
     (11131, [Entry 1 False, REDUCE sym_fb_decl 10 0 1129]),
     (11133, [Entry 1 True, REDUCE sym_fb_decl 10 0 1588]),
     (11135, [Entry 1 False, REDUCE sym_fb_decl 10 0 1588]),
     (11137, [Entry 1 True, REDUCE sym_fb_decl 10 0 1589]),
     (11139, [Entry 1 False, REDUCE sym_fb_decl 10 0 1589]),
     (11141, [Entry 1 True, REDUCE sym_class_decl 9 0 624]),
     (11143, [Entry 1 False, REDUCE sym_class_decl 9 0 624]),
     (11145, [Entry 1 True, REDUCE sym_class_decl 9 0 625]),
     (11147, [Entry 1 False, REDUCE sym_class_decl 9 0 625]),
     (11149, [Entry 1 True, REDUCE sym_fb_decl 10 0 1590]),
     (11151, [Entry 1 False, REDUCE sym_fb_decl 10 0 1590]),
     (11153, [Entry 1 True, REDUCE sym_fb_decl 8 0 491]),
     (11155, [Entry 1 False, REDUCE sym_fb_decl 8 0 491]),
     (11157, [Entry 1 True, REDUCE sym_fb_decl 8 0 279]),
     (11159, [Entry 1 False, REDUCE sym_fb_decl 8 0 279]),
     (11161, [Entry 1 True, REDUCE sym_fb_decl 8 0 492]),
     (11163, [Entry 1 False, REDUCE sym_fb_decl 8 0 492]),
     (11165, [Entry 1 True, REDUCE sym_fb_decl 8 0 493]),
     (11167, [Entry 1 False, REDUCE sym_fb_decl 8 0 493]),
     (11169, [Entry 1 True, REDUCE sym_class_decl 9 0 999]),
     (11171, [Entry 1 False, REDUCE sym_class_decl 9 0 999]),
     (11173, [Entry 1 True, REDUCE sym_fb_decl 8 0 280]),
     (11175, [Entry 1 False, REDUCE sym_fb_decl 8 0 280]),
     (11177, [Entry 1 True, REDUCE sym_fb_decl 8 0 494]),
     (11179, [Entry 1 False, REDUCE sym_fb_decl 8 0 494]),
     (11181, [Entry 1 True, REDUCE sym_fb_decl 10 0 1591]),
     (11183, [Entry 1 False, REDUCE sym_fb_decl 10 0 1591]),
     (11185, [Entry 1 True, REDUCE sym_fb_decl 8 0 495]),
     (11187, [Entry 1 False, REDUCE sym_fb_decl 8 0 495]),
     (11189, [Entry 1 True, REDUCE sym_fb_decl 10 0 1592]),
     (11191, [Entry 1 False, REDUCE sym_fb_decl 10 0 1592]),
     (11193, [Entry 1 True, REDUCE sym_fb_decl 10 0 1132]),
     (11195, [Entry 1 False, REDUCE sym_fb_decl 10 0 1132]),
     (11197, [Entry 1 True, REDUCE sym_fb_decl 10 0 1593]),
     (11199, [Entry 1 False, REDUCE sym_fb_decl 10 0 1593]),
     (11201, [Entry 1 True, REDUCE sym_fb_decl 10 0 1594]),
     (11203, [Entry 1 False, REDUCE sym_fb_decl 10 0 1594]),
     (11205, [Entry 1 True, REDUCE sym_fb_decl 10 0 1134]),
     (11207, [Entry 1 False, REDUCE sym_fb_decl 10 0 1134]),
     (11209, [Entry 1 True, REDUCE sym_fb_decl 10 0 1595]),
     (11211, [Entry 1 False, REDUCE sym_fb_decl 10 0 1595]),
     (11213, [Entry 1 True, REDUCE sym_fb_decl 10 0 1596]),
     (11215, [Entry 1 False, REDUCE sym_fb_decl 10 0 1596]),
     (11217, [Entry 1 True, REDUCE sym_class_decl 6 0 200]),
     (11219, [Entry 1 False, REDUCE sym_class_decl 6 0 200]),
     (11221, [Entry 1 True, REDUCE sym_fb_decl 10 0 1135]),
     (11223, [Entry 1 False, REDUCE sym_fb_decl 10 0 1135]),
     (11225, [Entry 1 True, REDUCE sym_fb_decl 10 0 1597]),
     (11227, [Entry 1 False, REDUCE sym_fb_decl 10 0 1597]),
     (11229, [Entry 1 True, REDUCE sym_fb_decl 10 0 1598]),
     (11231, [Entry 1 False, REDUCE sym_fb_decl 10 0 1598]),
     (11233, [Entry 1 True, REDUCE sym_fb_decl 10 0 1136]),
     (11235, [Entry 1 False, REDUCE sym_fb_decl 10 0 1136]),
     (11237, [Entry 1 True, REDUCE sym_fb_decl 10 0 1599]),
     (11239, [Entry 1 False, REDUCE sym_fb_decl 10 0 1599]),
     (11241, [Entry 1 True, REDUCE sym_fb_decl 10 0 1600]),
     (11243, [Entry 1 False, REDUCE sym_fb_decl 10 0 1600]),
     (11245, [Entry 1 True, REDUCE sym_fb_decl 5 0 29]),
     (11247, [Entry 1 False, REDUCE sym_fb_decl 5 0 29]),
     (11249, [Entry 1 True, REDUCE sym_fb_decl 10 0 1137]),
     (11251, [Entry 1 False, REDUCE sym_fb_decl 10 0 1137]),
     (11253, [Entry 1 True, REDUCE sym_fb_decl 10 0 1601]),
     (11255, [Entry 1 False, REDUCE sym_fb_decl 10 0 1601]),
     (11257, [Entry 1 True, REDUCE sym_fb_decl 10 0 1602]),
     (11259, [Entry 1 False, REDUCE sym_fb_decl 10 0 1602]),
     (11261, [Entry 1 True, REDUCE sym_fb_decl 8 0 496]),
     (11263, [Entry 1 False, REDUCE sym_fb_decl 8 0 496]),
     (11265, [Entry 1 True, REDUCE sym_class_decl 6 0 74]),
     (11267, [Entry 1 False, REDUCE sym_class_decl 6 0 74]),
     (11269, [Entry 1 True, REDUCE sym_fb_decl 10 0 1603]),
     (11271, [Entry 1 False, REDUCE sym_fb_decl 10 0 1603]),
     (11273, [Entry 1 True, REDUCE sym_class_decl 6 0 170]),
     (11275, [Entry 1 False, REDUCE sym_class_decl 6 0 170]),
     (11277, [Entry 1 True, REDUCE sym_fb_decl 10 0 1138]),
     (11279, [Entry 1 False, REDUCE sym_fb_decl 10 0 1138]),
     (11281, [Entry 1 True, REDUCE sym_fb_decl 10 0 1604]),
     (11283, [Entry 1 False, REDUCE sym_fb_decl 10 0 1604]),
     (11285, [Entry 1 True, REDUCE sym_fb_decl 10 0 1605]),
     (11287, [Entry 1 False, REDUCE sym_fb_decl 10 0 1605]),
     (11289, [Entry 1 True, REDUCE sym_fb_decl 10 0 1606]),
     (11291, [Entry 1 False, REDUCE sym_fb_decl 10 0 1606]),
     (11293, [Entry 1 True, REDUCE sym_fb_decl 10 0 1143]),
     (11295, [Entry 1 False, REDUCE sym_fb_decl 10 0 1143]),
     (11297, [Entry 1 True, REDUCE sym_fb_decl 10 0 1607]),
     (11299, [Entry 1 False, REDUCE sym_fb_decl 10 0 1607]),
     (11301, [Entry 1 True, REDUCE sym_fb_decl 10 0 1608]),
     (11303, [Entry 1 False, REDUCE sym_fb_decl 10 0 1608]),
     (11305, [Entry 1 True, REDUCE sym_fb_decl 10 0 1145]),
     (11307, [Entry 1 False, REDUCE sym_fb_decl 10 0 1145]),
     (11309, [Entry 1 True, REDUCE sym_fb_decl 10 0 1609]),
     (11311, [Entry 1 False, REDUCE sym_fb_decl 10 0 1609]),
     (11313, [Entry 1 True, REDUCE sym_fb_decl 10 0 1610]),
     (11315, [Entry 1 False, REDUCE sym_fb_decl 10 0 1610]),
     (11317, [Entry 1 True, REDUCE sym_fb_decl 8 0 154])]"

lemma ts_parse_actions_37_tiled: "tiled_from 11019 ts_parse_actions_37 \<and> after_runs 11019 ts_parse_actions_37 = 11319"
  unfolding ts_parse_actions_37_def by (simp cong: runs_weak)

lemma ts_parse_actions_37_ok: "list_all (\<lambda>(i, es). group_ok es) ts_parse_actions_37"
  unfolding ts_parse_actions_37_def
  by (simp add: group_ok_simps entry_action_ok_simps del: One_nat_def group_ok.simps cong: list_all_weak)

text \<open>Lines 486271 to 486420.\<close>

definition ts_parse_actions_38 :: "(nat \<times> TSParseActionEntry list) list" where
  "ts_parse_actions_38 =
    [(11319, [Entry 1 False, REDUCE sym_fb_decl 8 0 154]),
     (11321, [Entry 1 True, REDUCE sym_fb_decl 10 0 1146]),
     (11323, [Entry 1 False, REDUCE sym_fb_decl 10 0 1146]),
     (11325, [Entry 1 True, REDUCE sym_fb_decl 10 0 1611]),
     (11327, [Entry 1 False, REDUCE sym_fb_decl 10 0 1611]),
     (11329, [Entry 1 True, REDUCE sym_fb_decl 10 0 1612]),
     (11331, [Entry 1 False, REDUCE sym_fb_decl 10 0 1612]),
     (11333, [Entry 1 True, REDUCE sym_fb_decl 10 0 1147]),
     (11335, [Entry 1 False, REDUCE sym_fb_decl 10 0 1147]),
     (11337, [Entry 1 True, REDUCE sym_fb_decl 10 0 1613]),
     (11339, [Entry 1 False, REDUCE sym_fb_decl 10 0 1613]),
     (11341, [Entry 1 True, REDUCE sym_fb_decl 10 0 1614]),
     (11343, [Entry 1 False, REDUCE sym_fb_decl 10 0 1614]),
     (11345, [Entry 1 True, REDUCE sym_fb_decl 8 0 497]),
     (11347, [Entry 1 False, REDUCE sym_fb_decl 8 0 497]),
     (11349, [Entry 1 True, REDUCE sym_fb_decl 10 0 1148]),
     (11351, [Entry 1 False, REDUCE sym_fb_decl 10 0 1148]),
     (11353, [Entry 1 True, REDUCE sym_fb_decl 10 0 1615]),
     (11355, [Entry 1 False, REDUCE sym_fb_decl 10 0 1615]),
     (11357, [Entry 1 True, REDUCE sym_fb_decl 10 0 1616]),
     (11359, [Entry 1 False, REDUCE sym_fb_decl 10 0 1616]),
     (11361, [Entry 1 True, REDUCE sym_class_decl 9 0 626]),
     (11363, [Entry 1 False, REDUCE sym_class_decl 9 0 626]),
     (11365, [Entry 1 True, REDUCE sym_class_decl 9 0 627]),
     (11367, [Entry 1 False, REDUCE sym_class_decl 9 0 627]),
     (11369, [Entry 1 True, REDUCE sym_fb_decl 10 0 1617]),
     (11371, [Entry 1 False, REDUCE sym_fb_decl 10 0 1617]),
     (11373, [Entry 1 True, REDUCE sym_fb_decl 8 0 498]),
     (11375, [Entry 1 False, REDUCE sym_fb_decl 8 0 498]),
     (11377, [Entry 1 True, REDUCE sym_fb_decl 10 0 1149]),
     (11379, [Entry 1 False, REDUCE sym_fb_decl 10 0 1149]),
     (11381, [Entry 1 True, REDUCE sym_fb_decl 10 0 1618]),
     (11383, [Entry 1 False, REDUCE sym_fb_decl 10 0 1618]),
     (11385, [Entry 1 True, REDUCE sym_fb_decl 10 0 1619]),
     (11387, [Entry 1 False, REDUCE sym_fb_decl 10 0 1619]),
     (11389, [Entry 1 True, REDUCE sym_fb_decl 10 0 1151]),
     (11391, [Entry 1 False, REDUCE sym_fb_decl 10 0 1151]),
     (11393, [Entry 1 True, REDUCE sym_fb_decl 10 0 1620]),
     (11395, [Entry 1 False, REDUCE sym_fb_decl 10 0 1620]),
     (11397, [Entry 1 True, REDUCE sym_fb_decl 10 0 1621]),
     (11399, [Entry 1 False, REDUCE sym_fb_decl 10 0 1621]),
     (11401, [Entry 1 True, REDUCE sym_fb_decl 5 0 81]),
     (11403, [Entry 1 False, REDUCE sym_fb_decl 5 0 81]),
     (11405, [Entry 1 True, REDUCE sym_class_decl 9 0 1000]),
     (11407, [Entry 1 False, REDUCE sym_class_decl 9 0 1000]),
     (11409, [Entry 1 True, REDUCE sym_fb_decl 10 0 1622]),
     (11411, [Entry 1 False, REDUCE sym_fb_decl 10 0 1622]),
     (11413, [Entry 1 True, REDUCE sym_class_decl 6 0 201]),
     (11415, [Entry 1 False, REDUCE sym_class_decl 6 0 201]),
     (11417, [Entry 1 True, REDUCE sym_class_decl 6 0 175]),
     (11419, [Entry 1 False, REDUCE sym_class_decl 6 0 175]),
     (11421, [Entry 1 True, REDUCE sym_class_decl 9 0 361]),
     (11423, [Entry 1 False, REDUCE sym_class_decl 9 0 361]),
     (11425, [Entry 1 True, REDUCE sym_class_decl 9 0 1001]),
     (11427, [Entry 1 False, REDUCE sym_class_decl 9 0 1001]),
     (11429, [Entry 1 True, REDUCE sym_fb_decl 9 0 900]),
     (11431, [Entry 1 False, REDUCE sym_fb_decl 9 0 900]),
     (11433, [Entry 1 True, REDUCE sym_fb_decl 8 0 499]),
     (11435, [Entry 1 False, REDUCE sym_fb_decl 8 0 499]),
     (11437, [Entry 1 True, REDUCE sym_class_decl 6 0 176]),
     (11439, [Entry 1 False, REDUCE sym_class_decl 6 0 176]),
     (11441, [Entry 1 True, REDUCE sym_fb_decl 10 0 1623]),
     (11443, [Entry 1 False, REDUCE sym_fb_decl 10 0 1623]),
     (11445, [Entry 1 True, REDUCE sym_fb_decl 8 0 281]),
     (11447, [Entry 1 False, REDUCE sym_fb_decl 8 0 281]),
     (11449, [Entry 1 True, REDUCE sym_fb_decl 10 0 1624]),
     (11451, [Entry 1 False, REDUCE sym_fb_decl 10 0 1624]),
     (11453, [Entry 1 True, REDUCE sym_fb_decl 10 0 1154]),
     (11455, [Entry 1 False, REDUCE sym_fb_decl 10 0 1154]),
     (11457, [Entry 1 True, REDUCE sym_fb_decl 10 0 1625]),
     (11459, [Entry 1 False, REDUCE sym_fb_decl 10 0 1625]),
     (11461, [Entry 1 True, REDUCE sym_fb_decl 10 0 1626]),
     (11463, [Entry 1 False, REDUCE sym_fb_decl 10 0 1626]),
     (11465, [Entry 1 True, REDUCE sym_fb_decl 10 0 1156]),
     (11467, [Entry 1 False, REDUCE sym_fb_decl 10 0 1156]),
     (11469, [Entry 1 True, REDUCE sym_fb_decl 10 0 1627]),
     (11471, [Entry 1 False, REDUCE sym_fb_decl 10 0 1627]),
     (11473, [Entry 1 True, REDUCE sym_fb_decl 10 0 1628]),
     (11475, [Entry 1 False, REDUCE sym_fb_decl 10 0 1628]),
     (11477, [Entry 1 True, REDUCE sym_fb_decl 8 0 500]),
     (11479, [Entry 1 False, REDUCE sym_fb_decl 8 0 500]),
     (11481, [Entry 1 True, REDUCE sym_fb_decl 10 0 1157]),
     (11483, [Entry 1 False, REDUCE sym_fb_decl 10 0 1157]),
     (11485, [Entry 1 True, REDUCE sym_fb_decl 10 0 1629]),
     (11487, [Entry 1 False, REDUCE sym_fb_decl 10 0 1629]),
     (11489, [Entry 1 True, REDUCE sym_fb_decl 10 0 1630]),
     (11491, [Entry 1 False, REDUCE sym_fb_decl 10 0 1630]),
     (11493, [Entry 1 True, REDUCE sym_fb_decl 8 0 282]),
     (11495, [Entry 1 False, REDUCE sym_fb_decl 8 0 282]),
     (11497, [Entry 1 True, REDUCE sym_fb_decl 8 0 501]),
     (11499, [Entry 1 False, REDUCE sym_fb_decl 8 0 501]),
     (11501, [Entry 1 True, REDUCE sym_fb_decl 8 0 502]),
     (11503, [Entry 1 False, REDUCE sym_fb_decl 8 0 502]),
     (11505, [Entry 1 True, REDUCE sym_class_decl 9 0 1002]),
     (11507, [Entry 1 False, REDUCE sym_class_decl 9 0 1002]),
     (11509, [Entry 1 True, REDUCE sym_class_decl 9 0 628]),
     (11511, [Entry 1 False, REDUCE sym_class_decl 9 0 628]),
     (11513, [Entry 1 True, REDUCE sym_fb_decl 10 0 1631]),
     (11515, [Entry 1 False, REDUCE sym_fb_decl 10 0 1631]),
     (11517, [Entry 1 True, REDUCE sym_fb_decl 10 0 1158]),
     (11519, [Entry 1 False, REDUCE sym_fb_decl 10 0 1158]),
     (11521, [Entry 1 True, REDUCE sym_fb_decl 10 0 1632]),
     (11523, [Entry 1 False, REDUCE sym_fb_decl 10 0 1632]),
     (11525, [Entry 1 True, REDUCE sym_fb_decl 10 0 1633]),
     (11527, [Entry 1 False, REDUCE sym_fb_decl 10 0 1633]),
     (11529, [Entry 1 True, REDUCE sym_fb_decl 8 0 503]),
     (11531, [Entry 1 False, REDUCE sym_fb_decl 8 0 503]),
     (11533, [Entry 1 True, REDUCE sym_fb_decl 10 0 1159]),
     (11535, [Entry 1 False, REDUCE sym_fb_decl 10 0 1159]),
     (11537, [Entry 1 True, REDUCE sym_fb_decl 10 0 1634]),
     (11539, [Entry 1 False, REDUCE sym_fb_decl 10 0 1634]),
     (11541, [Entry 1 True, REDUCE sym_fb_decl 10 0 1635]),
     (11543, [Entry 1 False, REDUCE sym_fb_decl 10 0 1635]),
     (11545, [Entry 1 True, REDUCE sym_class_decl 5 0 30]),
     (11547, [Entry 1 False, REDUCE sym_class_decl 5 0 30]),
     (11549, [Entry 1 True, REDUCE sym_class_decl 9 0 1003]),
     (11551, [Entry 1 False, REDUCE sym_class_decl 9 0 1003]),
     (11553, [Entry 1 True, REDUCE sym_fb_decl 10 0 1636]),
     (11555, [Entry 1 False, REDUCE sym_fb_decl 10 0 1636]),
     (11557, [Entry 1 True, REDUCE sym_class_decl 6 0 76]),
     (11559, [Entry 1 False, REDUCE sym_class_decl 6 0 76]),
     (11561, [Entry 1 True, REDUCE sym_fb_decl 10 0 419]),
     (11563, [Entry 1 False, REDUCE sym_fb_decl 10 0 419]),
     (11565, [Entry 1 True, REDUCE sym_fb_decl 10 0 1637]),
     (11567, [Entry 1 False, REDUCE sym_fb_decl 10 0 1637]),
     (11569, [Entry 1 True, REDUCE sym_class_decl 6 0 202]),
     (11571, [Entry 1 False, REDUCE sym_class_decl 6 0 202]),
     (11573, [Entry 1 True, REDUCE sym_fb_decl 9 0 901]),
     (11575, [Entry 1 False, REDUCE sym_fb_decl 9 0 901]),
     (11577, [Entry 1 True, REDUCE sym_fb_decl 10 0 1638]),
     (11579, [Entry 1 False, REDUCE sym_fb_decl 10 0 1638]),
     (11581, [Entry 1 True, REDUCE sym_class_decl 6 0 5]),
     (11583, [Entry 1 False, REDUCE sym_class_decl 6 0 5]),
     (11585, [Entry 1 True, REDUCE sym_class_decl 6 0 183]),
     (11587, [Entry 1 False, REDUCE sym_class_decl 6 0 183]),
     (11589, [Entry 1 True, REDUCE sym_fb_decl 8 0 504]),
     (11591, [Entry 1 False, REDUCE sym_fb_decl 8 0 504]),
     (11593, [Entry 1 True, REDUCE sym_fb_decl 10 0 1639]),
     (11595, [Entry 1 False, REDUCE sym_fb_decl 10 0 1639]),
     (11597, [Entry 1 True, REDUCE sym_namespace_decl 3 0 5]),
     (11599, [Entry 1 False, REDUCE sym_namespace_decl 3 0 5]),
     (11601, [Entry 1 True, REDUCE sym_fb_decl 10 0 1160]),
     (11603, [Entry 1 False, REDUCE sym_fb_decl 10 0 1160]),
     (11605, [Entry 1 True, REDUCE sym_fb_decl 10 0 1640]),
     (11607, [Entry 1 False, REDUCE sym_fb_decl 10 0 1640]),
     (11609, [Entry 1 True, REDUCE sym_fb_decl 10 0 1641]),
     (11611, [Entry 1 False, REDUCE sym_fb_decl 10 0 1641]),
     (11613, [Entry 1 True, REDUCE sym_fb_decl 10 0 1642]),
     (11615, [Entry 1 False, REDUCE sym_fb_decl 10 0 1642]),
     (11617, [Entry 1 True, REDUCE sym_fb_decl 10 0 1643])]"

lemma ts_parse_actions_38_tiled: "tiled_from 11319 ts_parse_actions_38 \<and> after_runs 11319 ts_parse_actions_38 = 11619"
  unfolding ts_parse_actions_38_def by (simp cong: runs_weak)

lemma ts_parse_actions_38_ok: "list_all (\<lambda>(i, es). group_ok es) ts_parse_actions_38"
  unfolding ts_parse_actions_38_def
  by (simp add: group_ok_simps entry_action_ok_simps del: One_nat_def group_ok.simps cong: list_all_weak)

text \<open>Lines 486421 to 486570.\<close>

definition ts_parse_actions_39 :: "(nat \<times> TSParseActionEntry list) list" where
  "ts_parse_actions_39 =
    [(11619, [Entry 1 False, REDUCE sym_fb_decl 10 0 1643]),
     (11621, [Entry 1 True, REDUCE sym_fb_decl 10 0 1167]),
     (11623, [Entry 1 False, REDUCE sym_fb_decl 10 0 1167]),
     (11625, [Entry 1 True, REDUCE sym_fb_decl 10 0 1644]),
     (11627, [Entry 1 False, REDUCE sym_fb_decl 10 0 1644]),
     (11629, [Entry 1 True, REDUCE sym_fb_decl 10 0 1645]),
     (11631, [Entry 1 False, REDUCE sym_fb_decl 10 0 1645]),
     (11633, [Entry 1 True, REDUCE sym_class_decl 4 0 30]),
     (11635, [Entry 1 False, REDUCE sym_class_decl 4 0 30]),
     (11637, [Entry 1 True, REDUCE sym_fb_decl 10 0 1168]),
     (11639, [Entry 1 False, REDUCE sym_fb_decl 10 0 1168]),
     (11641, [Entry 1 True, REDUCE sym_fb_decl 10 0 1646]),
     (11643, [Entry 1 False, REDUCE sym_fb_decl 10 0 1646]),
     (11645, [Entry 1 True, REDUCE sym_fb_decl 10 0 1647]),
     (11647, [Entry 1 False, REDUCE sym_fb_decl 10 0 1647]),
     (11649, [Entry 1 True, REDUCE sym_fb_decl 8 0 283]),
     (11651, [Entry 1 False, REDUCE sym_fb_decl 8 0 283]),
     (11653, [Entry 1 True, REDUCE sym_fb_decl 8 0 505]),
     (11655, [Entry 1 False, REDUCE sym_fb_decl 8 0 505]),
     (11657, [Entry 1 True, REDUCE sym_fb_decl 10 0 1648]),
     (11659, [Entry 1 False, REDUCE sym_fb_decl 10 0 1648]),
     (11661, [Entry 1 True, REDUCE sym_fb_decl 8 0 506]),
     (11663, [Entry 1 False, REDUCE sym_fb_decl 8 0 506]),
     (11665, [Entry 1 True, REDUCE sym_fb_decl 10 0 739]),
     (11667, [Entry 1 False, REDUCE sym_fb_decl 10 0 739]),
     (11669, [Entry 1 True, REDUCE sym_fb_decl 10 0 1649]),
     (11671, [Entry 1 False, REDUCE sym_fb_decl 10 0 1649]),
     (11673, [Entry 1 True, REDUCE sym_fb_decl 9 0 902]),
     (11675, [Entry 1 False, REDUCE sym_fb_decl 9 0 902]),
     (11677, [Entry 1 True, REDUCE sym_class_decl 6 0 203]),
     (11679, [Entry 1 False, REDUCE sym_class_decl 6 0 203]),
     (11681, [Entry 1 True, REDUCE sym_fb_decl 10 0 1650]),
     (11683, [Entry 1 False, REDUCE sym_fb_decl 10 0 1650]),
     (11685, [Entry 1 True, REDUCE sym_fb_decl 8 0 507]),
     (11687, [Entry 1 False, REDUCE sym_fb_decl 8 0 507]),
     (11689, [Entry 1 True, REDUCE sym_class_decl 6 0 85]),
     (11691, [Entry 1 False, REDUCE sym_class_decl 6 0 85]),
     (11693, [Entry 1 True, REDUCE sym_class_decl 6 0 86]),
     (11695, [Entry 1 False, REDUCE sym_class_decl 6 0 86]),
     (11697, [Entry 1 True, REDUCE sym_fb_decl 10 0 1651]),
     (11699, [Entry 1 False, REDUCE sym_fb_decl 10 0 1651]),
     (11701, [Entry 1 True, REDUCE sym_class_decl 6 0 204]),
     (11703, [Entry 1 False, REDUCE sym_class_decl 6 0 204]),
     (11705, [Entry 1 True, REDUCE sym_fb_decl 10 0 1169]),
     (11707, [Entry 1 False, REDUCE sym_fb_decl 10 0 1169]),
     (11709, [Entry 1 True, REDUCE sym_fb_decl 10 0 1652]),
     (11711, [Entry 1 False, REDUCE sym_fb_decl 10 0 1652]),
     (11713, [Entry 1 True, REDUCE sym_fb_decl 10 0 1653]),
     (11715, [Entry 1 False, REDUCE sym_fb_decl 10 0 1653]),
     (11717, [Entry 1 True, REDUCE sym_fb_decl 10 0 1654]),
     (11719, [Entry 1 False, REDUCE sym_fb_decl 10 0 1654]),
     (11721, [Entry 1 True, REDUCE sym_fb_decl 10 0 1174]),
     (11723, [Entry 1 False, REDUCE sym_fb_decl 10 0 1174]),
     (11725, [Entry 1 True, REDUCE sym_fb_decl 10 0 1655]),
     (11727, [Entry 1 False, REDUCE sym_fb_decl 10 0 1655]),
     (11729, [Entry 1 True, REDUCE sym_fb_decl 10 0 1656]),
     (11731, [Entry 1 False, REDUCE sym_fb_decl 10 0 1656]),
     (11733, [Entry 1 True, REDUCE sym_fb_decl 10 0 1657]),
     (11735, [Entry 1 False, REDUCE sym_fb_decl 10 0 1657]),
     (11737, [Entry 1 True, REDUCE sym_fb_decl 10 0 1178]),
     (11739, [Entry 1 False, REDUCE sym_fb_decl 10 0 1178]),
     (11741, [Entry 1 True, REDUCE sym_fb_decl 10 0 1658]),
     (11743, [Entry 1 False, REDUCE sym_fb_decl 10 0 1658]),
     (11745, [Entry 1 True, REDUCE sym_fb_decl 10 0 1659]),
     (11747, [Entry 1 False, REDUCE sym_fb_decl 10 0 1659]),
     (11749, [Entry 1 True, REDUCE sym_fb_decl 10 0 1180]),
     (11751, [Entry 1 False, REDUCE sym_fb_decl 10 0 1180]),
     (11753, [Entry 1 True, REDUCE sym_fb_decl 10 0 1660]),
     (11755, [Entry 1 False, REDUCE sym_fb_decl 10 0 1660]),
     (11757, [Entry 1 True, REDUCE sym_fb_decl 10 0 1661]),
     (11759, [Entry 1 False, REDUCE sym_fb_decl 10 0 1661]),
     (11761, [Entry 1 True, REDUCE sym_class_decl 9 0 629]),
     (11763, [Entry 1 False, REDUCE sym_class_decl 9 0 629]),
     (11765, [Entry 1 True, REDUCE sym_fb_decl 10 0 1181]),
     (11767, [Entry 1 False, REDUCE sym_fb_decl 10 0 1181]),
     (11769, [Entry 1 True, REDUCE sym_fb_decl 10 0 1662]),
     (11771, [Entry 1 False, REDUCE sym_fb_decl 10 0 1662]),
     (11773, [Entry 1 True, REDUCE sym_fb_decl 10 0 1663]),
     (11775, [Entry 1 False, REDUCE sym_fb_decl 10 0 1663]),
     (11777, [Entry 1 True, REDUCE sym_class_decl 9 0 1004]),
     (11779, [Entry 1 False, REDUCE sym_class_decl 9 0 1004]),
     (11781, [Entry 1 True, REDUCE sym_fb_decl 7 0 185]),
     (11783, [Entry 1 False, REDUCE sym_fb_decl 7 0 185]),
     (11785, [Entry 1 True, REDUCE sym_class_decl 9 0 362]),
     (11787, [Entry 1 False, REDUCE sym_class_decl 9 0 362]),
     (11789, [Entry 1 True, REDUCE sym_class_decl 6 0 205]),
     (11791, [Entry 1 False, REDUCE sym_class_decl 6 0 205]),
     (11793, [Entry 1 True, REDUCE sym_class_decl 9 0 1005]),
     (11795, [Entry 1 False, REDUCE sym_class_decl 9 0 1005]),
     (11797, [Entry 1 True, REDUCE sym_fb_decl 8 0 508]),
     (11799, [Entry 1 False, REDUCE sym_fb_decl 8 0 508]),
     (11801, [Entry 1 True, REDUCE sym_fb_decl 9 0 553]),
     (11803, [Entry 1 False, REDUCE sym_fb_decl 9 0 553]),
     (11805, [Entry 1 True, REDUCE sym_fb_decl 8 0 509]),
     (11807, [Entry 1 False, REDUCE sym_fb_decl 8 0 509]),
     (11809, [Entry 1 True, REDUCE sym_fb_decl 8 0 286]),
     (11811, [Entry 1 False, REDUCE sym_fb_decl 8 0 286]),
     (11813, [Entry 1 True, REDUCE sym_fb_decl 8 0 510]),
     (11815, [Entry 1 False, REDUCE sym_fb_decl 8 0 510]),
     (11817, [Entry 1 True, REDUCE sym_fb_decl 8 0 511]),
     (11819, [Entry 1 False, REDUCE sym_fb_decl 8 0 511]),
     (11821, [Entry 1 True, REDUCE sym_fb_decl 8 0 288]),
     (11823, [Entry 1 False, REDUCE sym_fb_decl 8 0 288]),
     (11825, [Entry 1 True, REDUCE sym_fb_decl 8 0 512]),
     (11827, [Entry 1 False, REDUCE sym_fb_decl 8 0 512]),
     (11829, [Entry 1 True, REDUCE sym_fb_decl 8 0 513]),
     (11831, [Entry 1 False, REDUCE sym_fb_decl 8 0 513]),
     (11833, [Entry 1 True, REDUCE sym_class_decl 5 0 82]),
     (11835, [Entry 1 False, REDUCE sym_class_decl 5 0 82]),
     (11837, [Entry 1 True, REDUCE sym_fb_decl 8 0 289]),
     (11839, [Entry 1 False, REDUCE sym_fb_decl 8 0 289]),
     (11841, [Entry 1 True, REDUCE sym_fb_decl 8 0 514]),
     (11843, [Entry 1 False, REDUCE sym_fb_decl 8 0 514]),
     (11845, [Entry 1 True, REDUCE sym_fb_decl 8 0 515]),
     (11847, [Entry 1 False, REDUCE sym_fb_decl 8 0 515]),
     (11849, [Entry 1 True, REDUCE sym_fb_decl 11 0 1683]),
     (11851, [Entry 1 False, REDUCE sym_fb_decl 11 0 1683]),
     (11853, [Entry 1 True, REDUCE sym_fb_decl 11 0 1684]),
     (11855, [Entry 1 False, REDUCE sym_fb_decl 11 0 1684]),
     (11857, [Entry 1 True, REDUCE sym_fb_decl 11 0 1685]),
     (11859, [Entry 1 False, REDUCE sym_fb_decl 11 0 1685]),
     (11861, [Entry 1 True, REDUCE sym_fb_decl 11 0 1225]),
     (11863, [Entry 1 False, REDUCE sym_fb_decl 11 0 1225]),
     (11865, [Entry 1 True, REDUCE sym_fb_decl 11 0 1686]),
     (11867, [Entry 1 False, REDUCE sym_fb_decl 11 0 1686]),
     (11869, [Entry 1 True, REDUCE sym_fb_decl 11 0 1687]),
     (11871, [Entry 1 False, REDUCE sym_fb_decl 11 0 1687]),
     (11873, [Entry 1 True, REDUCE sym_fb_decl 11 0 1688]),
     (11875, [Entry 1 False, REDUCE sym_fb_decl 11 0 1688]),
     (11877, [Entry 1 True, REDUCE sym_fb_decl 11 0 1230]),
     (11879, [Entry 1 False, REDUCE sym_fb_decl 11 0 1230]),
     (11881, [Entry 1 True, REDUCE sym_fb_decl 11 0 1689]),
     (11883, [Entry 1 False, REDUCE sym_fb_decl 11 0 1689]),
     (11885, [Entry 1 True, REDUCE sym_fb_decl 11 0 1690]),
     (11887, [Entry 1 False, REDUCE sym_fb_decl 11 0 1690]),
     (11889, [Entry 1 True, REDUCE sym_fb_decl 11 0 1232]),
     (11891, [Entry 1 False, REDUCE sym_fb_decl 11 0 1232]),
     (11893, [Entry 1 True, REDUCE sym_fb_decl 11 0 1691]),
     (11895, [Entry 1 False, REDUCE sym_fb_decl 11 0 1691]),
     (11897, [Entry 1 True, REDUCE sym_fb_decl 11 0 1692]),
     (11899, [Entry 1 False, REDUCE sym_fb_decl 11 0 1692]),
     (11901, [Entry 1 True, REDUCE sym_fb_decl 9 0 903]),
     (11903, [Entry 1 False, REDUCE sym_fb_decl 9 0 903]),
     (11905, [Entry 1 True, REDUCE sym_fb_decl 11 0 1233]),
     (11907, [Entry 1 False, REDUCE sym_fb_decl 11 0 1233]),
     (11909, [Entry 1 True, REDUCE sym_fb_decl 11 0 1693]),
     (11911, [Entry 1 False, REDUCE sym_fb_decl 11 0 1693]),
     (11913, [Entry 1 True, REDUCE sym_fb_decl 11 0 1694]),
     (11915, [Entry 1 False, REDUCE sym_fb_decl 11 0 1694]),
     (11917, [Entry 1 True, REDUCE sym_fb_decl 11 0 1234])]"

lemma ts_parse_actions_39_tiled: "tiled_from 11619 ts_parse_actions_39 \<and> after_runs 11619 ts_parse_actions_39 = 11919"
  unfolding ts_parse_actions_39_def by (simp cong: runs_weak)

lemma ts_parse_actions_39_ok: "list_all (\<lambda>(i, es). group_ok es) ts_parse_actions_39"
  unfolding ts_parse_actions_39_def
  by (simp add: group_ok_simps entry_action_ok_simps del: One_nat_def group_ok.simps cong: list_all_weak)

text \<open>Lines 486571 to 486720.\<close>

definition ts_parse_actions_40 :: "(nat \<times> TSParseActionEntry list) list" where
  "ts_parse_actions_40 =
    [(11919, [Entry 1 False, REDUCE sym_fb_decl 11 0 1234]),
     (11921, [Entry 1 True, REDUCE sym_fb_decl 11 0 1695]),
     (11923, [Entry 1 False, REDUCE sym_fb_decl 11 0 1695]),
     (11925, [Entry 1 True, REDUCE sym_fb_decl 11 0 1696]),
     (11927, [Entry 1 False, REDUCE sym_fb_decl 11 0 1696]),
     (11929, [Entry 1 True, REDUCE sym_fb_decl 9 0 904]),
     (11931, [Entry 1 False, REDUCE sym_fb_decl 9 0 904]),
     (11933, [Entry 1 True, REDUCE sym_fb_decl 11 0 1235]),
     (11935, [Entry 1 False, REDUCE sym_fb_decl 11 0 1235]),
     (11937, [Entry 1 True, REDUCE sym_fb_decl 11 0 1697]),
     (11939, [Entry 1 False, REDUCE sym_fb_decl 11 0 1697]),
     (11941, [Entry 1 True, REDUCE sym_fb_decl 11 0 1698]),
     (11943, [Entry 1 False, REDUCE sym_fb_decl 11 0 1698]),
     (11945, [Entry 1 True, REDUCE sym_class_decl 5 0 83]),
     (11947, [Entry 1 False, REDUCE sym_class_decl 5 0 83]),
     (11949, [Entry 1 True, REDUCE sym_class_decl 6 0 25]),
     (11951, [Entry 1 False, REDUCE sym_class_decl 6 0 25]),
     (11953, [Entry 1 True, REDUCE sym_fb_decl 11 0 1699]),
     (11955, [Entry 1 False, REDUCE sym_fb_decl 11 0 1699]),
     (11957, [Entry 1 True, REDUCE sym_class_decl 6 0 206]),
     (11959, [Entry 1 False, REDUCE sym_class_decl 6 0 206]),
     (11961, [Entry 1 True, REDUCE sym_fb_decl 11 0 1236]),
     (11963, [Entry 1 False, REDUCE sym_fb_decl 11 0 1236]),
     (11965, [Entry 1 True, REDUCE sym_fb_decl 11 0 1700]),
     (11967, [Entry 1 False, REDUCE sym_fb_decl 11 0 1700]),
     (11969, [Entry 1 True, REDUCE sym_fb_decl 11 0 1701]),
     (11971, [Entry 1 False, REDUCE sym_fb_decl 11 0 1701]),
     (11973, [Entry 1 True, REDUCE sym_fb_decl 11 0 1702]),
     (11975, [Entry 1 False, REDUCE sym_fb_decl 11 0 1702]),
     (11977, [Entry 1 True, REDUCE sym_fb_decl 11 0 1703]),
     (11979, [Entry 1 False, REDUCE sym_fb_decl 11 0 1703]),
     (11981, [Entry 1 True, REDUCE sym_fb_decl 11 0 1243]),
     (11983, [Entry 1 False, REDUCE sym_fb_decl 11 0 1243]),
     (11985, [Entry 1 True, REDUCE sym_fb_decl 11 0 1704]),
     (11987, [Entry 1 False, REDUCE sym_fb_decl 11 0 1704]),
     (11989, [Entry 1 True, REDUCE sym_fb_decl 11 0 1705]),
     (11991, [Entry 1 False, REDUCE sym_fb_decl 11 0 1705]),
     (11993, [Entry 1 True, REDUCE sym_fb_decl 8 0 516]),
     (11995, [Entry 1 False, REDUCE sym_fb_decl 8 0 516]),
     (11997, [Entry 1 True, REDUCE sym_fb_decl 11 0 1244]),
     (11999, [Entry 1 False, REDUCE sym_fb_decl 11 0 1244]),
     (12001, [Entry 1 True, REDUCE sym_fb_decl 11 0 1706]),
     (12003, [Entry 1 False, REDUCE sym_fb_decl 11 0 1706]),
     (12005, [Entry 1 True, REDUCE sym_fb_decl 11 0 1707]),
     (12007, [Entry 1 False, REDUCE sym_fb_decl 11 0 1707]),
     (12009, [Entry 1 True, REDUCE sym_fb_decl 8 0 290]),
     (12011, [Entry 1 False, REDUCE sym_fb_decl 8 0 290]),
     (12013, [Entry 1 True, REDUCE sym_fb_decl 8 0 517]),
     (12015, [Entry 1 False, REDUCE sym_fb_decl 8 0 517]),
     (12017, [Entry 1 True, REDUCE sym_fb_decl 11 0 1708]),
     (12019, [Entry 1 False, REDUCE sym_fb_decl 11 0 1708]),
     (12021, [Entry 1 True, REDUCE sym_fb_decl 8 0 518]),
     (12023, [Entry 1 False, REDUCE sym_fb_decl 8 0 518]),
     (12025, [Entry 1 True, REDUCE sym_fb_decl 11 0 824]),
     (12027, [Entry 1 False, REDUCE sym_fb_decl 11 0 824]),
     (12029, [Entry 1 True, REDUCE sym_fb_decl 11 0 1709]),
     (12031, [Entry 1 False, REDUCE sym_fb_decl 11 0 1709]),
     (12033, [Entry 1 True, REDUCE sym_class_decl 9 0 1006]),
     (12035, [Entry 1 False, REDUCE sym_class_decl 9 0 1006]),
     (12037, [Entry 1 True, REDUCE sym_fb_decl 8 0 291]),
     (12039, [Entry 1 False, REDUCE sym_fb_decl 8 0 291]),
     (12041, [Entry 1 True, REDUCE sym_fb_decl 11 0 1710]),
     (12043, [Entry 1 False, REDUCE sym_fb_decl 11 0 1710]),
     (12045, [Entry 1 True, REDUCE sym_fb_decl 8 0 519]),
     (12047, [Entry 1 False, REDUCE sym_fb_decl 8 0 519]),
     (12049, [Entry 1 True, REDUCE sym_fb_decl 8 0 520]),
     (12051, [Entry 1 False, REDUCE sym_fb_decl 8 0 520]),
     (12053, [Entry 1 True, REDUCE sym_class_decl 9 0 630]),
     (12055, [Entry 1 False, REDUCE sym_class_decl 9 0 630]),
     (12057, [Entry 1 True, REDUCE sym_fb_decl 11 0 1711]),
     (12059, [Entry 1 False, REDUCE sym_fb_decl 11 0 1711]),
     (12061, [Entry 1 True, REDUCE sym_fb_decl 4 0 38]),
     (12063, [Entry 1 False, REDUCE sym_fb_decl 4 0 38]),
     (12065, [Entry 1 True, REDUCE sym_fb_decl 11 0 1245]),
     (12067, [Entry 1 False, REDUCE sym_fb_decl 11 0 1245]),
     (12069, [Entry 1 True, REDUCE sym_fb_decl 11 0 1712]),
     (12071, [Entry 1 False, REDUCE sym_fb_decl 11 0 1712]),
     (12073, [Entry 1 True, REDUCE sym_fb_decl 11 0 1713]),
     (12075, [Entry 1 False, REDUCE sym_fb_decl 11 0 1713]),
     (12077, [Entry 1 True, REDUCE sym_fb_decl 11 0 1714]),
     (12079, [Entry 1 False, REDUCE sym_fb_decl 11 0 1714]),
     (12081, [Entry 1 True, REDUCE sym_fb_decl 11 0 1250]),
     (12083, [Entry 1 False, REDUCE sym_fb_decl 11 0 1250]),
     (12085, [Entry 1 True, REDUCE sym_fb_decl 11 0 1715]),
     (12087, [Entry 1 False, REDUCE sym_fb_decl 11 0 1715]),
     (12089, [Entry 1 True, REDUCE sym_fb_decl 11 0 1716]),
     (12091, [Entry 1 False, REDUCE sym_fb_decl 11 0 1716]),
     (12093, [Entry 1 True, REDUCE sym_fb_decl 11 0 1717]),
     (12095, [Entry 1 False, REDUCE sym_fb_decl 11 0 1717]),
     (12097, [Entry 1 True, REDUCE sym_fb_decl 11 0 1254]),
     (12099, [Entry 1 False, REDUCE sym_fb_decl 11 0 1254]),
     (12101, [Entry 1 True, REDUCE sym_fb_decl 11 0 1718]),
     (12103, [Entry 1 False, REDUCE sym_fb_decl 11 0 1718]),
     (12105, [Entry 1 True, REDUCE sym_fb_decl 11 0 1719]),
     (12107, [Entry 1 False, REDUCE sym_fb_decl 11 0 1719]),
     (12109, [Entry 1 True, REDUCE sym_fb_decl 11 0 1256]),
     (12111, [Entry 1 False, REDUCE sym_fb_decl 11 0 1256]),
     (12113, [Entry 1 True, REDUCE sym_fb_decl 11 0 1720]),
     (12115, [Entry 1 False, REDUCE sym_fb_decl 11 0 1720]),
     (12117, [Entry 1 True, REDUCE sym_fb_decl 11 0 1721]),
     (12119, [Entry 1 False, REDUCE sym_fb_decl 11 0 1721]),
     (12121, [Entry 1 True, REDUCE sym_fb_decl 8 0 521]),
     (12123, [Entry 1 False, REDUCE sym_fb_decl 8 0 521]),
     (12125, [Entry 1 True, REDUCE sym_fb_decl 11 0 1257]),
     (12127, [Entry 1 False, REDUCE sym_fb_decl 11 0 1257]),
     (12129, [Entry 1 True, REDUCE sym_fb_decl 11 0 1722]),
     (12131, [Entry 1 False, REDUCE sym_fb_decl 11 0 1722]),
     (12133, [Entry 1 True, REDUCE sym_fb_decl 11 0 1723]),
     (12135, [Entry 1 False, REDUCE sym_fb_decl 11 0 1723]),
     (12137, [Entry 1 True, REDUCE sym_fb_decl 11 0 1724]),
     (12139, [Entry 1 False, REDUCE sym_fb_decl 11 0 1724]),
     (12141, [Entry 1 True, REDUCE sym_fb_decl 11 0 1725]),
     (12143, [Entry 1 False, REDUCE sym_fb_decl 11 0 1725]),
     (12145, [Entry 1 True, REDUCE sym_fb_decl 11 0 1264]),
     (12147, [Entry 1 False, REDUCE sym_fb_decl 11 0 1264]),
     (12149, [Entry 1 True, REDUCE sym_fb_decl 11 0 1726]),
     (12151, [Entry 1 False, REDUCE sym_fb_decl 11 0 1726]),
     (12153, [Entry 1 True, REDUCE sym_fb_decl 11 0 1727]),
     (12155, [Entry 1 False, REDUCE sym_fb_decl 11 0 1727]),
     (12157, [Entry 1 True, REDUCE sym_fb_decl 11 0 1728]),
     (12159, [Entry 1 False, REDUCE sym_fb_decl 11 0 1728]),
     (12161, [Entry 1 True, REDUCE sym_fb_decl 11 0 1268]),
     (12163, [Entry 1 False, REDUCE sym_fb_decl 11 0 1268]),
     (12165, [Entry 1 True, REDUCE sym_fb_decl 11 0 1729]),
     (12167, [Entry 1 False, REDUCE sym_fb_decl 11 0 1729]),
     (12169, [Entry 1 True, REDUCE sym_fb_decl 11 0 1730]),
     (12171, [Entry 1 False, REDUCE sym_fb_decl 11 0 1730]),
     (12173, [Entry 1 True, REDUCE sym_fb_decl 11 0 1270]),
     (12175, [Entry 1 False, REDUCE sym_fb_decl 11 0 1270]),
     (12177, [Entry 1 True, REDUCE sym_fb_decl 11 0 1731]),
     (12179, [Entry 1 False, REDUCE sym_fb_decl 11 0 1731]),
     (12181, [Entry 1 True, REDUCE sym_fb_decl 11 0 1732]),
     (12183, [Entry 1 False, REDUCE sym_fb_decl 11 0 1732]),
     (12185, [Entry 1 True, REDUCE sym_class_decl 9 0 631]),
     (12187, [Entry 1 False, REDUCE sym_class_decl 9 0 631]),
     (12189, [Entry 1 True, REDUCE sym_fb_decl 11 0 1271]),
     (12191, [Entry 1 False, REDUCE sym_fb_decl 11 0 1271]),
     (12193, [Entry 1 True, REDUCE sym_fb_decl 11 0 1733]),
     (12195, [Entry 1 False, REDUCE sym_fb_decl 11 0 1733]),
     (12197, [Entry 1 True, REDUCE sym_fb_decl 11 0 1734]),
     (12199, [Entry 1 False, REDUCE sym_fb_decl 11 0 1734]),
     (12201, [Entry 1 True, REDUCE sym_fb_decl 11 0 1735]),
     (12203, [Entry 1 False, REDUCE sym_fb_decl 11 0 1735]),
     (12205, [Entry 1 True, REDUCE sym_fb_decl 11 0 1275]),
     (12207, [Entry 1 False, REDUCE sym_fb_decl 11 0 1275]),
     (12209, [Entry 1 True, REDUCE sym_fb_decl 11 0 1736]),
     (12211, [Entry 1 False, REDUCE sym_fb_decl 11 0 1736]),
     (12213, [Entry 1 True, REDUCE sym_fb_decl 11 0 1737]),
     (12215, [Entry 1 False, REDUCE sym_fb_decl 11 0 1737]),
     (12217, [Entry 1 True, REDUCE sym_fb_decl 8 0 28])]"

lemma ts_parse_actions_40_tiled: "tiled_from 11919 ts_parse_actions_40 \<and> after_runs 11919 ts_parse_actions_40 = 12219"
  unfolding ts_parse_actions_40_def by (simp cong: runs_weak)

lemma ts_parse_actions_40_ok: "list_all (\<lambda>(i, es). group_ok es) ts_parse_actions_40"
  unfolding ts_parse_actions_40_def
  by (simp add: group_ok_simps entry_action_ok_simps del: One_nat_def group_ok.simps cong: list_all_weak)

text \<open>Lines 486721 to 486870.\<close>

definition ts_parse_actions_41 :: "(nat \<times> TSParseActionEntry list) list" where
  "ts_parse_actions_41 =
    [(12219, [Entry 1 False, REDUCE sym_fb_decl 8 0 28]),
     (12221, [Entry 1 True, REDUCE sym_fb_decl 11 0 1276]),
     (12223, [Entry 1 False, REDUCE sym_fb_decl 11 0 1276]),
     (12225, [Entry 1 True, REDUCE sym_fb_decl 11 0 1738]),
     (12227, [Entry 1 False, REDUCE sym_fb_decl 11 0 1738]),
     (12229, [Entry 1 True, REDUCE sym_fb_decl 11 0 1739]),
     (12231, [Entry 1 False, REDUCE sym_fb_decl 11 0 1739]),
     (12233, [Entry 1 True, REDUCE sym_fb_decl 8 0 522]),
     (12235, [Entry 1 False, REDUCE sym_fb_decl 8 0 522]),
     (12237, [Entry 1 True, REDUCE sym_class_decl 6 0 207]),
     (12239, [Entry 1 False, REDUCE sym_class_decl 6 0 207]),
     (12241, [Entry 1 True, REDUCE sym_fb_decl 11 0 1740]),
     (12243, [Entry 1 False, REDUCE sym_fb_decl 11 0 1740]),
     (12245, [Entry 1 True, REDUCE sym_class_decl 6 0 64]),
     (12247, [Entry 1 False, REDUCE sym_class_decl 6 0 64]),
     (12249, [Entry 1 True, REDUCE sym_fb_decl 11 0 846]),
     (12251, [Entry 1 False, REDUCE sym_fb_decl 11 0 846]),
     (12253, [Entry 1 True, REDUCE sym_fb_decl 11 0 1741]),
     (12255, [Entry 1 False, REDUCE sym_fb_decl 11 0 1741]),
     (12257, [Entry 1 True, REDUCE sym_fb_decl 8 0 523]),
     (12259, [Entry 1 False, REDUCE sym_fb_decl 8 0 523]),
     (12261, [Entry 1 True, REDUCE sym_class_decl 6 0 208]),
     (12263, [Entry 1 False, REDUCE sym_class_decl 6 0 208]),
     (12265, [Entry 1 True, REDUCE sym_fb_decl 11 0 1742]),
     (12267, [Entry 1 False, REDUCE sym_fb_decl 11 0 1742]),
     (12269, [Entry 1 True, REDUCE sym_class_decl 6 0 87]),
     (12271, [Entry 1 False, REDUCE sym_class_decl 6 0 87]),
     (12273, [Entry 1 True, REDUCE sym_interface_decl 6 0 74]),
     (12275, [Entry 1 False, REDUCE sym_interface_decl 6 0 74]),
     (12277, [Entry 1 True, REDUCE sym_fb_decl 8 0 524]),
     (12279, [Entry 1 False, REDUCE sym_fb_decl 8 0 524]),
     (12281, [Entry 1 True, REDUCE sym_fb_decl 11 0 1743]),
     (12283, [Entry 1 False, REDUCE sym_fb_decl 11 0 1743]),
     (12285, [Entry 1 True, REDUCE sym_interface_decl 6 0 209]),
     (12287, [Entry 1 False, REDUCE sym_interface_decl 6 0 209]),
     (12289, [Entry 1 True, REDUCE sym_fb_decl 11 0 1277]),
     (12291, [Entry 1 False, REDUCE sym_fb_decl 11 0 1277]),
     (12293, [Entry 1 True, REDUCE sym_fb_decl 11 0 1744]),
     (12295, [Entry 1 False, REDUCE sym_fb_decl 11 0 1744]),
     (12297, [Entry 1 True, REDUCE sym_fb_decl 11 0 1745]),
     (12299, [Entry 1 False, REDUCE sym_fb_decl 11 0 1745]),
     (12301, [Entry 1 True, REDUCE sym_fb_decl 11 0 1746]),
     (12303, [Entry 1 False, REDUCE sym_fb_decl 11 0 1746]),
     (12305, [Entry 1 True, REDUCE sym_fb_decl 11 0 1282]),
     (12307, [Entry 1 False, REDUCE sym_fb_decl 11 0 1282]),
     (12309, [Entry 1 True, REDUCE sym_fb_decl 11 0 1747]),
     (12311, [Entry 1 False, REDUCE sym_fb_decl 11 0 1747]),
     (12313, [Entry 1 True, REDUCE sym_fb_decl 11 0 1748]),
     (12315, [Entry 1 False, REDUCE sym_fb_decl 11 0 1748]),
     (12317, [Entry 1 True, REDUCE sym_fb_decl 11 0 1284]),
     (12319, [Entry 1 False, REDUCE sym_fb_decl 11 0 1284]),
     (12321, [Entry 1 True, REDUCE sym_fb_decl 11 0 1749]),
     (12323, [Entry 1 False, REDUCE sym_fb_decl 11 0 1749]),
     (12325, [Entry 1 True, REDUCE sym_fb_decl 11 0 1750]),
     (12327, [Entry 1 False, REDUCE sym_fb_decl 11 0 1750]),
     (12329, [Entry 1 True, REDUCE sym_fb_decl 8 0 292]),
     (12331, [Entry 1 False, REDUCE sym_fb_decl 8 0 292]),
     (12333, [Entry 1 True, REDUCE sym_fb_decl 8 0 525]),
     (12335, [Entry 1 False, REDUCE sym_fb_decl 8 0 525]),
     (12337, [Entry 1 True, REDUCE sym_fb_decl 11 0 1751]),
     (12339, [Entry 1 False, REDUCE sym_fb_decl 11 0 1751]),
     (12341, [Entry 1 True, REDUCE sym_fb_decl 8 0 526]),
     (12343, [Entry 1 False, REDUCE sym_fb_decl 8 0 526]),
     (12345, [Entry 1 True, REDUCE sym_fb_decl 8 0 527]),
     (12347, [Entry 1 False, REDUCE sym_fb_decl 8 0 527]),
     (12349, [Entry 1 True, REDUCE sym_fb_decl 8 0 528]),
     (12351, [Entry 1 False, REDUCE sym_fb_decl 8 0 528]),
     (12353, [Entry 1 True, REDUCE sym_fb_decl 8 0 298]),
     (12355, [Entry 1 False, REDUCE sym_fb_decl 8 0 298]),
     (12357, [Entry 1 True, REDUCE sym_fb_decl 8 0 529]),
     (12359, [Entry 1 False, REDUCE sym_fb_decl 8 0 529]),
     (12361, [Entry 1 True, REDUCE sym_fb_decl 8 0 530]),
     (12363, [Entry 1 False, REDUCE sym_fb_decl 8 0 530]),
     (12365, [Entry 1 True, REDUCE sym_fb_decl 8 0 531]),
     (12367, [Entry 1 False, REDUCE sym_fb_decl 8 0 531]),
     (12369, [Entry 1 True, REDUCE sym_fb_decl 11 0 1752]),
     (12371, [Entry 1 False, REDUCE sym_fb_decl 11 0 1752]),
     (12373, [Entry 1 True, REDUCE sym_fb_decl 8 0 303]),
     (12375, [Entry 1 False, REDUCE sym_fb_decl 8 0 303]),
     (12377, [Entry 1 True, REDUCE sym_fb_decl 11 0 1753]),
     (12379, [Entry 1 False, REDUCE sym_fb_decl 11 0 1753]),
     (12381, [Entry 1 True, REDUCE sym_fb_decl 11 0 1287]),
     (12383, [Entry 1 False, REDUCE sym_fb_decl 11 0 1287]),
     (12385, [Entry 1 True, REDUCE sym_fb_decl 11 0 1754]),
     (12387, [Entry 1 False, REDUCE sym_fb_decl 11 0 1754]),
     (12389, [Entry 1 True, REDUCE sym_fb_decl 11 0 1755]),
     (12391, [Entry 1 False, REDUCE sym_fb_decl 11 0 1755]),
     (12393, [Entry 1 True, REDUCE sym_fb_decl 11 0 1289]),
     (12395, [Entry 1 False, REDUCE sym_fb_decl 11 0 1289]),
     (12397, [Entry 1 True, REDUCE sym_fb_decl 11 0 1756]),
     (12399, [Entry 1 False, REDUCE sym_fb_decl 11 0 1756]),
     (12401, [Entry 1 True, REDUCE sym_fb_decl 11 0 1757]),
     (12403, [Entry 1 False, REDUCE sym_fb_decl 11 0 1757]),
     (12405, [Entry 1 True, REDUCE sym_fb_decl 8 0 532]),
     (12407, [Entry 1 False, REDUCE sym_fb_decl 8 0 532]),
     (12409, [Entry 1 True, REDUCE sym_fb_decl 11 0 1290]),
     (12411, [Entry 1 False, REDUCE sym_fb_decl 11 0 1290]),
     (12413, [Entry 1 True, REDUCE sym_fb_decl 11 0 1758]),
     (12415, [Entry 1 False, REDUCE sym_fb_decl 11 0 1758]),
     (12417, [Entry 1 True, REDUCE sym_fb_decl 11 0 1759]),
     (12419, [Entry 1 False, REDUCE sym_fb_decl 11 0 1759]),
     (12421, [Entry 1 True, REDUCE sym_fb_decl 11 0 1291]),
     (12423, [Entry 1 False, REDUCE sym_fb_decl 11 0 1291]),
     (12425, [Entry 1 True, REDUCE sym_fb_decl 11 0 1760]),
     (12427, [Entry 1 False, REDUCE sym_fb_decl 11 0 1760]),
     (12429, [Entry 1 True, REDUCE sym_fb_decl 11 0 1761]),
     (12431, [Entry 1 False, REDUCE sym_fb_decl 11 0 1761]),
     (12433, [Entry 1 True, REDUCE sym_fb_decl 8 0 533]),
     (12435, [Entry 1 False, REDUCE sym_fb_decl 8 0 533]),
     (12437, [Entry 1 True, REDUCE sym_fb_decl 11 0 1292]),
     (12439, [Entry 1 False, REDUCE sym_fb_decl 11 0 1292]),
     (12441, [Entry 1 True, REDUCE sym_fb_decl 11 0 1762]),
     (12443, [Entry 1 False, REDUCE sym_fb_decl 11 0 1762]),
     (12445, [Entry 1 True, REDUCE sym_fb_decl 11 0 1763]),
     (12447, [Entry 1 False, REDUCE sym_fb_decl 11 0 1763]),
     (12449, [Entry 1 True, REDUCE sym_fb_decl 8 0 305]),
     (12451, [Entry 1 False, REDUCE sym_fb_decl 8 0 305]),
     (12453, [Entry 1 True, REDUCE sym_fb_decl 8 0 534]),
     (12455, [Entry 1 False, REDUCE sym_fb_decl 8 0 534]),
     (12457, [Entry 1 True, REDUCE sym_fb_decl 11 0 1764]),
     (12459, [Entry 1 False, REDUCE sym_fb_decl 11 0 1764]),
     (12461, [Entry 1 True, REDUCE sym_fb_decl 8 0 535]),
     (12463, [Entry 1 False, REDUCE sym_fb_decl 8 0 535]),
     (12465, [Entry 1 True, REDUCE sym_fb_decl 11 0 1293]),
     (12467, [Entry 1 False, REDUCE sym_fb_decl 11 0 1293]),
     (12469, [Entry 1 True, REDUCE sym_fb_decl 11 0 1765]),
     (12471, [Entry 1 False, REDUCE sym_fb_decl 11 0 1765]),
     (12473, [Entry 1 True, REDUCE sym_fb_decl 11 0 1766]),
     (12475, [Entry 1 False, REDUCE sym_fb_decl 11 0 1766]),
     (12477, [Entry 1 True, REDUCE sym_fb_decl 11 0 1767]),
     (12479, [Entry 1 False, REDUCE sym_fb_decl 11 0 1767]),
     (12481, [Entry 1 True, REDUCE sym_fb_decl 11 0 1299]),
     (12483, [Entry 1 False, REDUCE sym_fb_decl 11 0 1299]),
     (12485, [Entry 1 True, REDUCE sym_fb_decl 11 0 1768]),
     (12487, [Entry 1 False, REDUCE sym_fb_decl 11 0 1768]),
     (12489, [Entry 1 True, REDUCE sym_fb_decl 11 0 1769]),
     (12491, [Entry 1 False, REDUCE sym_fb_decl 11 0 1769]),
     (12493, [Entry 1 True, REDUCE sym_fb_decl 11 0 1301]),
     (12495, [Entry 1 False, REDUCE sym_fb_decl 11 0 1301]),
     (12497, [Entry 1 True, REDUCE sym_fb_decl 11 0 1770]),
     (12499, [Entry 1 False, REDUCE sym_fb_decl 11 0 1770]),
     (12501, [Entry 1 True, REDUCE sym_fb_decl 11 0 1771]),
     (12503, [Entry 1 False, REDUCE sym_fb_decl 11 0 1771]),
     (12505, [Entry 1 True, REDUCE sym_class_decl 9 0 1007]),
     (12507, [Entry 1 False, REDUCE sym_class_decl 9 0 1007]),
     (12509, [Entry 1 True, REDUCE sym_fb_decl 11 0 1302]),
     (12511, [Entry 1 False, REDUCE sym_fb_decl 11 0 1302]),
     (12513, [Entry 1 True, REDUCE sym_fb_decl 11 0 1772]),
     (12515, [Entry 1 False, REDUCE sym_fb_decl 11 0 1772]),
     (12517, [Entry 1 True, REDUCE sym_fb_decl 11 0 1773])]"

lemma ts_parse_actions_41_tiled: "tiled_from 12219 ts_parse_actions_41 \<and> after_runs 12219 ts_parse_actions_41 = 12519"
  unfolding ts_parse_actions_41_def by (simp cong: runs_weak)

lemma ts_parse_actions_41_ok: "list_all (\<lambda>(i, es). group_ok es) ts_parse_actions_41"
  unfolding ts_parse_actions_41_def
  by (simp add: group_ok_simps entry_action_ok_simps del: One_nat_def group_ok.simps cong: list_all_weak)

text \<open>Lines 486871 to 487020.\<close>

definition ts_parse_actions_42 :: "(nat \<times> TSParseActionEntry list) list" where
  "ts_parse_actions_42 =
    [(12519, [Entry 1 False, REDUCE sym_fb_decl 11 0 1773]),
     (12521, [Entry 1 True, REDUCE sym_fb_decl 11 0 1303]),
     (12523, [Entry 1 False, REDUCE sym_fb_decl 11 0 1303]),
     (12525, [Entry 1 True, REDUCE sym_fb_decl 11 0 1774]),
     (12527, [Entry 1 False, REDUCE sym_fb_decl 11 0 1774]),
     (12529, [Entry 1 True, REDUCE sym_fb_decl 11 0 1775]),
     (12531, [Entry 1 False, REDUCE sym_fb_decl 11 0 1775]),
     (12533, [Entry 1 True, REDUCE sym_fb_decl 8 0 306]),
     (12535, [Entry 1 False, REDUCE sym_fb_decl 8 0 306]),
     (12537, [Entry 1 True, REDUCE sym_fb_decl 11 0 1304]),
     (12539, [Entry 1 False, REDUCE sym_fb_decl 11 0 1304]),
     (12541, [Entry 1 True, REDUCE sym_fb_decl 11 0 1776]),
     (12543, [Entry 1 False, REDUCE sym_fb_decl 11 0 1776]),
     (12545, [Entry 1 True, REDUCE sym_fb_decl 11 0 1777]),
     (12547, [Entry 1 False, REDUCE sym_fb_decl 11 0 1777]),
     (12549, [Entry 1 True, REDUCE sym_fb_decl 8 0 536]),
     (12551, [Entry 1 False, REDUCE sym_fb_decl 8 0 536]),
     (12553, [Entry 1 True, REDUCE sym_fb_decl 8 0 537]),
     (12555, [Entry 1 False, REDUCE sym_fb_decl 8 0 537]),
     (12557, [Entry 1 True, REDUCE sym_fb_decl 11 0 1778]),
     (12559, [Entry 1 False, REDUCE sym_fb_decl 11 0 1778]),
     (12561, [Entry 1 True, REDUCE sym_fb_decl 8 0 307]),
     (12563, [Entry 1 False, REDUCE sym_fb_decl 8 0 307]),
     (12565, [Entry 1 True, REDUCE sym_fb_decl 11 0 1305]),
     (12567, [Entry 1 False, REDUCE sym_fb_decl 11 0 1305]),
     (12569, [Entry 1 True, REDUCE sym_fb_decl 11 0 1779]),
     (12571, [Entry 1 False, REDUCE sym_fb_decl 11 0 1779]),
     (12573, [Entry 1 True, REDUCE sym_fb_decl 11 0 1780]),
     (12575, [Entry 1 False, REDUCE sym_fb_decl 11 0 1780]),
     (12577, [Entry 1 True, REDUCE sym_fb_decl 11 0 1781]),
     (12579, [Entry 1 False, REDUCE sym_fb_decl 11 0 1781]),
     (12581, [Entry 1 True, REDUCE sym_fb_decl 11 0 1782]),
     (12583, [Entry 1 False, REDUCE sym_fb_decl 11 0 1782]),
     (12585, [Entry 1 True, REDUCE sym_fb_decl 11 0 1783]),
     (12587, [Entry 1 False, REDUCE sym_fb_decl 11 0 1783]),
     (12589, [Entry 1 True, REDUCE sym_fb_decl 11 0 1315]),
     (12591, [Entry 1 False, REDUCE sym_fb_decl 11 0 1315]),
     (12593, [Entry 1 True, REDUCE sym_fb_decl 11 0 1784]),
     (12595, [Entry 1 False, REDUCE sym_fb_decl 11 0 1784]),
     (12597, [Entry 1 True, REDUCE sym_fb_decl 11 0 1785]),
     (12599, [Entry 1 False, REDUCE sym_fb_decl 11 0 1785]),
     (12601, [Entry 1 True, REDUCE sym_fb_decl 11 0 1786]),
     (12603, [Entry 1 False, REDUCE sym_fb_decl 11 0 1786]),
     (12605, [Entry 1 True, REDUCE sym_fb_decl 11 0 1787]),
     (12607, [Entry 1 False, REDUCE sym_fb_decl 11 0 1787]),
     (12609, [Entry 1 True, REDUCE sym_fb_decl 11 0 1788]),
     (12611, [Entry 1 False, REDUCE sym_fb_decl 11 0 1788]),
     (12613, [Entry 1 True, REDUCE sym_fb_decl 11 0 1327]),
     (12615, [Entry 1 False, REDUCE sym_fb_decl 11 0 1327]),
     (12617, [Entry 1 True, REDUCE sym_fb_decl 11 0 1789]),
     (12619, [Entry 1 False, REDUCE sym_fb_decl 11 0 1789]),
     (12621, [Entry 1 True, REDUCE sym_fb_decl 11 0 1790]),
     (12623, [Entry 1 False, REDUCE sym_fb_decl 11 0 1790]),
     (12625, [Entry 1 True, REDUCE sym_fb_decl 11 0 1791]),
     (12627, [Entry 1 False, REDUCE sym_fb_decl 11 0 1791]),
     (12629, [Entry 1 True, REDUCE sym_fb_decl 11 0 1331]),
     (12631, [Entry 1 False, REDUCE sym_fb_decl 11 0 1331]),
     (12633, [Entry 1 True, REDUCE sym_fb_decl 11 0 1792]),
     (12635, [Entry 1 False, REDUCE sym_fb_decl 11 0 1792]),
     (12637, [Entry 1 True, REDUCE sym_fb_decl 11 0 1793]),
     (12639, [Entry 1 False, REDUCE sym_fb_decl 11 0 1793]),
     (12641, [Entry 1 True, REDUCE sym_fb_decl 11 0 1333]),
     (12643, [Entry 1 False, REDUCE sym_fb_decl 11 0 1333]),
     (12645, [Entry 1 True, REDUCE sym_fb_decl 11 0 1794]),
     (12647, [Entry 1 False, REDUCE sym_fb_decl 11 0 1794]),
     (12649, [Entry 1 True, REDUCE sym_fb_decl 11 0 1795]),
     (12651, [Entry 1 False, REDUCE sym_fb_decl 11 0 1795]),
     (12653, [Entry 1 True, REDUCE sym_fb_decl 8 0 538]),
     (12655, [Entry 1 False, REDUCE sym_fb_decl 8 0 538]),
     (12657, [Entry 1 True, REDUCE sym_fb_decl 11 0 1334]),
     (12659, [Entry 1 False, REDUCE sym_fb_decl 11 0 1334]),
     (12661, [Entry 1 True, REDUCE sym_fb_decl 11 0 1796]),
     (12663, [Entry 1 False, REDUCE sym_fb_decl 11 0 1796]),
     (12665, [Entry 1 True, REDUCE sym_fb_decl 11 0 1797]),
     (12667, [Entry 1 False, REDUCE sym_fb_decl 11 0 1797]),
     (12669, [Entry 1 True, REDUCE sym_fb_decl 11 0 1798]),
     (12671, [Entry 1 False, REDUCE sym_fb_decl 11 0 1798]),
     (12673, [Entry 1 True, REDUCE sym_fb_decl 11 0 1340]),
     (12675, [Entry 1 False, REDUCE sym_fb_decl 11 0 1340]),
     (12677, [Entry 1 True, REDUCE sym_fb_decl 11 0 1799]),
     (12679, [Entry 1 False, REDUCE sym_fb_decl 11 0 1799]),
     (12681, [Entry 1 True, REDUCE sym_fb_decl 11 0 1800]),
     (12683, [Entry 1 False, REDUCE sym_fb_decl 11 0 1800]),
     (12685, [Entry 1 True, REDUCE sym_fb_decl 11 0 1342]),
     (12687, [Entry 1 False, REDUCE sym_fb_decl 11 0 1342]),
     (12689, [Entry 1 True, REDUCE sym_fb_decl 11 0 1801]),
     (12691, [Entry 1 False, REDUCE sym_fb_decl 11 0 1801]),
     (12693, [Entry 1 True, REDUCE sym_fb_decl 11 0 1802]),
     (12695, [Entry 1 False, REDUCE sym_fb_decl 11 0 1802]),
     (12697, [Entry 1 True, REDUCE sym_fb_decl 8 0 539]),
     (12699, [Entry 1 False, REDUCE sym_fb_decl 8 0 539]),
     (12701, [Entry 1 True, REDUCE sym_fb_decl 11 0 1343]),
     (12703, [Entry 1 False, REDUCE sym_fb_decl 11 0 1343]),
     (12705, [Entry 1 True, REDUCE sym_fb_decl 11 0 1803]),
     (12707, [Entry 1 False, REDUCE sym_fb_decl 11 0 1803]),
     (12709, [Entry 1 True, REDUCE sym_fb_decl 11 0 1804]),
     (12711, [Entry 1 False, REDUCE sym_fb_decl 11 0 1804]),
     (12713, [Entry 1 True, REDUCE sym_fb_decl 11 0 1344]),
     (12715, [Entry 1 False, REDUCE sym_fb_decl 11 0 1344]),
     (12717, [Entry 1 True, REDUCE sym_fb_decl 11 0 1805]),
     (12719, [Entry 1 False, REDUCE sym_fb_decl 11 0 1805]),
     (12721, [Entry 1 True, REDUCE sym_fb_decl 11 0 1806]),
     (12723, [Entry 1 False, REDUCE sym_fb_decl 11 0 1806]),
     (12725, [Entry 1 True, REDUCE sym_fb_decl 9 0 555]),
     (12727, [Entry 1 False, REDUCE sym_fb_decl 9 0 555]),
     (12729, [Entry 1 True, REDUCE sym_fb_decl 11 0 1345]),
     (12731, [Entry 1 False, REDUCE sym_fb_decl 11 0 1345]),
     (12733, [Entry 1 True, REDUCE sym_fb_decl 11 0 1807]),
     (12735, [Entry 1 False, REDUCE sym_fb_decl 11 0 1807]),
     (12737, [Entry 1 True, REDUCE sym_fb_decl 11 0 1808]),
     (12739, [Entry 1 False, REDUCE sym_fb_decl 11 0 1808]),
     (12741, [Entry 1 True, REDUCE sym_fb_decl 8 0 308]),
     (12743, [Entry 1 False, REDUCE sym_fb_decl 8 0 308]),
     (12745, [Entry 1 True, REDUCE sym_fb_decl 8 0 540]),
     (12747, [Entry 1 False, REDUCE sym_fb_decl 8 0 540]),
     (12749, [Entry 1 True, REDUCE sym_fb_decl 11 0 1809]),
     (12751, [Entry 1 False, REDUCE sym_fb_decl 11 0 1809]),
     (12753, [Entry 1 True, REDUCE sym_fb_decl 8 0 541]),
     (12755, [Entry 1 False, REDUCE sym_fb_decl 8 0 541]),
     (12757, [Entry 1 True, REDUCE sym_fb_decl 11 0 1346]),
     (12759, [Entry 1 False, REDUCE sym_fb_decl 11 0 1346]),
     (12761, [Entry 1 True, REDUCE sym_fb_decl 11 0 1810]),
     (12763, [Entry 1 False, REDUCE sym_fb_decl 11 0 1810]),
     (12765, [Entry 1 True, REDUCE sym_fb_decl 11 0 1811]),
     (12767, [Entry 1 False, REDUCE sym_fb_decl 11 0 1811]),
     (12769, [Entry 1 True, REDUCE sym_fb_decl 11 0 1812]),
     (12771, [Entry 1 False, REDUCE sym_fb_decl 11 0 1812]),
     (12773, [Entry 1 True, REDUCE sym_fb_decl 11 0 1813]),
     (12775, [Entry 1 False, REDUCE sym_fb_decl 11 0 1813]),
     (12777, [Entry 1 True, REDUCE sym_fb_decl 11 0 1814]),
     (12779, [Entry 1 False, REDUCE sym_fb_decl 11 0 1814]),
     (12781, [Entry 1 True, REDUCE sym_fb_decl 11 0 1356]),
     (12783, [Entry 1 False, REDUCE sym_fb_decl 11 0 1356]),
     (12785, [Entry 1 True, REDUCE sym_fb_decl 11 0 1815]),
     (12787, [Entry 1 False, REDUCE sym_fb_decl 11 0 1815]),
     (12789, [Entry 1 True, REDUCE sym_fb_decl 11 0 1816]),
     (12791, [Entry 1 False, REDUCE sym_fb_decl 11 0 1816]),
     (12793, [Entry 1 True, REDUCE sym_fb_decl 11 0 1817]),
     (12795, [Entry 1 False, REDUCE sym_fb_decl 11 0 1817]),
     (12797, [Entry 1 True, REDUCE sym_fb_decl 11 0 1818]),
     (12799, [Entry 1 False, REDUCE sym_fb_decl 11 0 1818]),
     (12801, [Entry 1 True, REDUCE sym_fb_decl 11 0 1819]),
     (12803, [Entry 1 False, REDUCE sym_fb_decl 11 0 1819]),
     (12805, [Entry 1 True, REDUCE sym_fb_decl 11 0 1369]),
     (12807, [Entry 1 False, REDUCE sym_fb_decl 11 0 1369]),
     (12809, [Entry 1 True, REDUCE sym_fb_decl 11 0 1820]),
     (12811, [Entry 1 False, REDUCE sym_fb_decl 11 0 1820]),
     (12813, [Entry 1 True, REDUCE sym_fb_decl 11 0 1821]),
     (12815, [Entry 1 False, REDUCE sym_fb_decl 11 0 1821]),
     (12817, [Entry 1 True, REDUCE sym_fb_decl 11 0 1822])]"

lemma ts_parse_actions_42_tiled: "tiled_from 12519 ts_parse_actions_42 \<and> after_runs 12519 ts_parse_actions_42 = 12819"
  unfolding ts_parse_actions_42_def by (simp cong: runs_weak)

lemma ts_parse_actions_42_ok: "list_all (\<lambda>(i, es). group_ok es) ts_parse_actions_42"
  unfolding ts_parse_actions_42_def
  by (simp add: group_ok_simps entry_action_ok_simps del: One_nat_def group_ok.simps cong: list_all_weak)

text \<open>Lines 487021 to 487170.\<close>

definition ts_parse_actions_43 :: "(nat \<times> TSParseActionEntry list) list" where
  "ts_parse_actions_43 =
    [(12819, [Entry 1 False, REDUCE sym_fb_decl 11 0 1822]),
     (12821, [Entry 1 True, REDUCE sym_fb_decl 11 0 1374]),
     (12823, [Entry 1 False, REDUCE sym_fb_decl 11 0 1374]),
     (12825, [Entry 1 True, REDUCE sym_fb_decl 11 0 1823]),
     (12827, [Entry 1 False, REDUCE sym_fb_decl 11 0 1823]),
     (12829, [Entry 1 True, REDUCE sym_fb_decl 11 0 1824]),
     (12831, [Entry 1 False, REDUCE sym_fb_decl 11 0 1824]),
     (12833, [Entry 1 True, REDUCE sym_fb_decl 11 0 1376]),
     (12835, [Entry 1 False, REDUCE sym_fb_decl 11 0 1376]),
     (12837, [Entry 1 True, REDUCE sym_fb_decl 11 0 1825]),
     (12839, [Entry 1 False, REDUCE sym_fb_decl 11 0 1825]),
     (12841, [Entry 1 True, REDUCE sym_fb_decl 11 0 1826]),
     (12843, [Entry 1 False, REDUCE sym_fb_decl 11 0 1826]),
     (12845, [Entry 1 True, REDUCE sym_fb_decl 9 0 905]),
     (12847, [Entry 1 False, REDUCE sym_fb_decl 9 0 905]),
     (12849, [Entry 1 True, REDUCE sym_fb_decl 11 0 1377]),
     (12851, [Entry 1 False, REDUCE sym_fb_decl 11 0 1377]),
     (12853, [Entry 1 True, REDUCE sym_fb_decl 11 0 1827]),
     (12855, [Entry 1 False, REDUCE sym_fb_decl 11 0 1827]),
     (12857, [Entry 1 True, REDUCE sym_fb_decl 11 0 1828]),
     (12859, [Entry 1 False, REDUCE sym_fb_decl 11 0 1828]),
     (12861, [Entry 1 True, REDUCE sym_fb_decl 11 0 1378]),
     (12863, [Entry 1 False, REDUCE sym_fb_decl 11 0 1378]),
     (12865, [Entry 1 True, REDUCE sym_fb_decl 11 0 1829]),
     (12867, [Entry 1 False, REDUCE sym_fb_decl 11 0 1829]),
     (12869, [Entry 1 True, REDUCE sym_fb_decl 11 0 1830]),
     (12871, [Entry 1 False, REDUCE sym_fb_decl 11 0 1830]),
     (12873, [Entry 1 True, REDUCE sym_fb_decl 9 0 906]),
     (12875, [Entry 1 False, REDUCE sym_fb_decl 9 0 906]),
     (12877, [Entry 1 True, REDUCE sym_fb_decl 11 0 1379]),
     (12879, [Entry 1 False, REDUCE sym_fb_decl 11 0 1379]),
     (12881, [Entry 1 True, REDUCE sym_fb_decl 11 0 1831]),
     (12883, [Entry 1 False, REDUCE sym_fb_decl 11 0 1831]),
     (12885, [Entry 1 True, REDUCE sym_fb_decl 11 0 1832]),
     (12887, [Entry 1 False, REDUCE sym_fb_decl 11 0 1832]),
     (12889, [Entry 1 True, REDUCE sym_fb_decl 8 0 542]),
     (12891, [Entry 1 False, REDUCE sym_fb_decl 8 0 542]),
     (12893, [Entry 1 True, REDUCE sym_interface_decl 6 0 205]),
     (12895, [Entry 1 False, REDUCE sym_interface_decl 6 0 205]),
     (12897, [Entry 1 True, REDUCE sym_fb_decl 11 0 1833]),
     (12899, [Entry 1 False, REDUCE sym_fb_decl 11 0 1833]),
     (12901, [Entry 1 True, REDUCE sym_fb_decl 8 0 309]),
     (12903, [Entry 1 False, REDUCE sym_fb_decl 8 0 309]),
     (12905, [Entry 1 True, REDUCE sym_fb_decl 11 0 1380]),
     (12907, [Entry 1 False, REDUCE sym_fb_decl 11 0 1380]),
     (12909, [Entry 1 True, REDUCE sym_fb_decl 11 0 1834]),
     (12911, [Entry 1 False, REDUCE sym_fb_decl 11 0 1834]),
     (12913, [Entry 1 True, REDUCE sym_fb_decl 11 0 1835]),
     (12915, [Entry 1 False, REDUCE sym_fb_decl 11 0 1835]),
     (12917, [Entry 1 True, REDUCE sym_fb_decl 11 0 1836]),
     (12919, [Entry 1 False, REDUCE sym_fb_decl 11 0 1836]),
     (12921, [Entry 1 True, REDUCE sym_fb_decl 11 0 1837]),
     (12923, [Entry 1 False, REDUCE sym_fb_decl 11 0 1837]),
     (12925, [Entry 1 True, REDUCE sym_fb_decl 11 0 1387]),
     (12927, [Entry 1 False, REDUCE sym_fb_decl 11 0 1387]),
     (12929, [Entry 1 True, REDUCE sym_fb_decl 11 0 1838]),
     (12931, [Entry 1 False, REDUCE sym_fb_decl 11 0 1838]),
     (12933, [Entry 1 True, REDUCE sym_fb_decl 11 0 1839]),
     (12935, [Entry 1 False, REDUCE sym_fb_decl 11 0 1839]),
     (12937, [Entry 1 True, REDUCE sym_fb_decl 8 0 543]),
     (12939, [Entry 1 False, REDUCE sym_fb_decl 8 0 543]),
     (12941, [Entry 1 True, REDUCE sym_fb_decl 11 0 1388]),
     (12943, [Entry 1 False, REDUCE sym_fb_decl 11 0 1388]),
     (12945, [Entry 1 True, REDUCE sym_fb_decl 11 0 1840]),
     (12947, [Entry 1 False, REDUCE sym_fb_decl 11 0 1840]),
     (12949, [Entry 1 True, REDUCE sym_fb_decl 11 0 1841]),
     (12951, [Entry 1 False, REDUCE sym_fb_decl 11 0 1841]),
     (12953, [Entry 1 True, REDUCE sym_fb_decl 8 0 544]),
     (12955, [Entry 1 False, REDUCE sym_fb_decl 8 0 544]),
     (12957, [Entry 1 True, REDUCE sym_fb_decl 8 0 311]),
     (12959, [Entry 1 False, REDUCE sym_fb_decl 8 0 311]),
     (12961, [Entry 1 True, REDUCE sym_fb_decl 11 0 1842]),
     (12963, [Entry 1 False, REDUCE sym_fb_decl 11 0 1842]),
     (12965, [Entry 1 True, REDUCE sym_fb_decl 8 0 545]),
     (12967, [Entry 1 False, REDUCE sym_fb_decl 8 0 545]),
     (12969, [Entry 1 True, REDUCE sym_fb_decl 11 0 949]),
     (12971, [Entry 1 False, REDUCE sym_fb_decl 11 0 949]),
     (12973, [Entry 1 True, REDUCE sym_fb_decl 11 0 1843]),
     (12975, [Entry 1 False, REDUCE sym_fb_decl 11 0 1843]),
     (12977, [Entry 1 True, REDUCE sym_fb_decl 8 0 546]),
     (12979, [Entry 1 False, REDUCE sym_fb_decl 8 0 546]),
     (12981, [Entry 1 True, REDUCE sym_interface_decl 6 0 211]),
     (12983, [Entry 1 False, REDUCE sym_interface_decl 6 0 211]),
     (12985, [Entry 1 True, REDUCE sym_fb_decl 11 0 1844]),
     (12987, [Entry 1 False, REDUCE sym_fb_decl 11 0 1844]),
     (12989, [Entry 1 True, REDUCE sym_fb_decl 8 0 547]),
     (12991, [Entry 1 False, REDUCE sym_fb_decl 8 0 547]),
     (12993, [Entry 1 True, REDUCE sym_namespace_decl 6 0 213]),
     (12995, [Entry 1 False, REDUCE sym_namespace_decl 6 0 213]),
     (12997, [Entry 1 True, REDUCE sym_fb_decl 11 0 1845]),
     (12999, [Entry 1 False, REDUCE sym_fb_decl 11 0 1845]),
     (13001, [Entry 1 True, REDUCE sym_func_decl 6 0 214]),
     (13003, [Entry 1 False, REDUCE sym_func_decl 6 0 214]),
     (13005, [Entry 1 True, REDUCE sym_fb_decl 11 0 1389]),
     (13007, [Entry 1 False, REDUCE sym_fb_decl 11 0 1389]),
     (13009, [Entry 1 True, REDUCE sym_fb_decl 11 0 1846]),
     (13011, [Entry 1 False, REDUCE sym_fb_decl 11 0 1846]),
     (13013, [Entry 1 True, REDUCE sym_fb_decl 11 0 1847]),
     (13015, [Entry 1 False, REDUCE sym_fb_decl 11 0 1847]),
     (13017, [Entry 1 True, REDUCE sym_fb_decl 11 0 1848]),
     (13019, [Entry 1 False, REDUCE sym_fb_decl 11 0 1848]),
     (13021, [Entry 1 True, REDUCE sym_fb_decl 11 0 1394]),
     (13023, [Entry 1 False, REDUCE sym_fb_decl 11 0 1394]),
     (13025, [Entry 1 True, REDUCE sym_fb_decl 11 0 1849]),
     (13027, [Entry 1 False, REDUCE sym_fb_decl 11 0 1849]),
     (13029, [Entry 1 True, REDUCE sym_fb_decl 11 0 1850]),
     (13031, [Entry 1 False, REDUCE sym_fb_decl 11 0 1850]),
     (13033, [Entry 1 True, REDUCE sym_fb_decl 11 0 1851]),
     (13035, [Entry 1 False, REDUCE sym_fb_decl 11 0 1851]),
     (13037, [Entry 1 True, REDUCE sym_fb_decl 11 0 1398]),
     (13039, [Entry 1 False, REDUCE sym_fb_decl 11 0 1398]),
     (13041, [Entry 1 True, REDUCE sym_fb_decl 11 0 1852]),
     (13043, [Entry 1 False, REDUCE sym_fb_decl 11 0 1852]),
     (13045, [Entry 1 True, REDUCE sym_fb_decl 11 0 1853]),
     (13047, [Entry 1 False, REDUCE sym_fb_decl 11 0 1853]),
     (13049, [Entry 1 True, REDUCE sym_fb_decl 11 0 1400]),
     (13051, [Entry 1 False, REDUCE sym_fb_decl 11 0 1400]),
     (13053, [Entry 1 True, REDUCE sym_fb_decl 11 0 1854]),
     (13055, [Entry 1 False, REDUCE sym_fb_decl 11 0 1854]),
     (13057, [Entry 1 True, REDUCE sym_fb_decl 11 0 1855]),
     (13059, [Entry 1 False, REDUCE sym_fb_decl 11 0 1855]),
     (13061, [Entry 1 True, REDUCE sym_class_decl 9 0 1008]),
     (13063, [Entry 1 False, REDUCE sym_class_decl 9 0 1008]),
     (13065, [Entry 1 True, REDUCE sym_fb_decl 11 0 1401]),
     (13067, [Entry 1 False, REDUCE sym_fb_decl 11 0 1401]),
     (13069, [Entry 1 True, REDUCE sym_fb_decl 11 0 1856]),
     (13071, [Entry 1 False, REDUCE sym_fb_decl 11 0 1856]),
     (13073, [Entry 1 True, REDUCE sym_fb_decl 11 0 1857]),
     (13075, [Entry 1 False, REDUCE sym_fb_decl 11 0 1857]),
     (13077, [Entry 1 True, REDUCE sym_fb_decl 11 0 1858]),
     (13079, [Entry 1 False, REDUCE sym_fb_decl 11 0 1858]),
     (13081, [Entry 1 True, REDUCE sym_fb_decl 11 0 1859]),
     (13083, [Entry 1 False, REDUCE sym_fb_decl 11 0 1859]),
     (13085, [Entry 1 True, REDUCE sym_fb_decl 11 0 1408]),
     (13087, [Entry 1 False, REDUCE sym_fb_decl 11 0 1408]),
     (13089, [Entry 1 True, REDUCE sym_fb_decl 11 0 1860]),
     (13091, [Entry 1 False, REDUCE sym_fb_decl 11 0 1860]),
     (13093, [Entry 1 True, REDUCE sym_fb_decl 11 0 1861]),
     (13095, [Entry 1 False, REDUCE sym_fb_decl 11 0 1861]),
     (13097, [Entry 1 True, REDUCE sym_fb_decl 11 0 1862]),
     (13099, [Entry 1 False, REDUCE sym_fb_decl 11 0 1862]),
     (13101, [Entry 1 True, REDUCE sym_fb_decl 11 0 1412]),
     (13103, [Entry 1 False, REDUCE sym_fb_decl 11 0 1412]),
     (13105, [Entry 1 True, REDUCE sym_fb_decl 11 0 1863]),
     (13107, [Entry 1 False, REDUCE sym_fb_decl 11 0 1863]),
     (13109, [Entry 1 True, REDUCE sym_fb_decl 11 0 1864]),
     (13111, [Entry 1 False, REDUCE sym_fb_decl 11 0 1864]),
     (13113, [Entry 1 True, REDUCE sym_fb_decl 11 0 1414]),
     (13115, [Entry 1 False, REDUCE sym_fb_decl 11 0 1414]),
     (13117, [Entry 1 True, REDUCE sym_fb_decl 11 0 1865])]"

lemma ts_parse_actions_43_tiled: "tiled_from 12819 ts_parse_actions_43 \<and> after_runs 12819 ts_parse_actions_43 = 13119"
  unfolding ts_parse_actions_43_def by (simp cong: runs_weak)

lemma ts_parse_actions_43_ok: "list_all (\<lambda>(i, es). group_ok es) ts_parse_actions_43"
  unfolding ts_parse_actions_43_def
  by (simp add: group_ok_simps entry_action_ok_simps del: One_nat_def group_ok.simps cong: list_all_weak)

text \<open>Lines 487171 to 487320.\<close>

definition ts_parse_actions_44 :: "(nat \<times> TSParseActionEntry list) list" where
  "ts_parse_actions_44 =
    [(13119, [Entry 1 False, REDUCE sym_fb_decl 11 0 1865]),
     (13121, [Entry 1 True, REDUCE sym_fb_decl 11 0 1866]),
     (13123, [Entry 1 False, REDUCE sym_fb_decl 11 0 1866]),
     (13125, [Entry 1 True, REDUCE sym_fb_decl 7 0 346]),
     (13127, [Entry 1 False, REDUCE sym_fb_decl 7 0 346]),
     (13129, [Entry 1 True, REDUCE sym_fb_decl 11 0 1415]),
     (13131, [Entry 1 False, REDUCE sym_fb_decl 11 0 1415]),
     (13133, [Entry 1 True, REDUCE sym_fb_decl 11 0 1867]),
     (13135, [Entry 1 False, REDUCE sym_fb_decl 11 0 1867]),
     (13137, [Entry 1 True, REDUCE sym_fb_decl 11 0 1868]),
     (13139, [Entry 1 False, REDUCE sym_fb_decl 11 0 1868]),
     (13141, [Entry 1 True, REDUCE sym_fb_decl 11 0 1869]),
     (13143, [Entry 1 False, REDUCE sym_fb_decl 11 0 1869]),
     (13145, [Entry 1 True, REDUCE sym_class_decl 9 0 632]),
     (13147, [Entry 1 False, REDUCE sym_class_decl 9 0 632]),
     (13149, [Entry 1 True, REDUCE sym_class_decl 11 0 1423]),
     (13151, [Entry 1 False, REDUCE sym_class_decl 11 0 1423]),
     (13153, [Entry 1 True, REDUCE sym_class_decl 11 0 1424]),
     (13155, [Entry 1 False, REDUCE sym_class_decl 11 0 1424]),
     (13157, [Entry 1 True, REDUCE sym_class_decl 11 0 1870]),
     (13159, [Entry 1 False, REDUCE sym_class_decl 11 0 1870]),
     (13161, [Entry 1 True, REDUCE sym_class_decl 11 0 1425]),
     (13163, [Entry 1 False, REDUCE sym_class_decl 11 0 1425]),
     (13165, [Entry 1 True, REDUCE sym_class_decl 11 0 1426]),
     (13167, [Entry 1 False, REDUCE sym_class_decl 11 0 1426]),
     (13169, [Entry 1 True, REDUCE sym_class_decl 11 0 1871]),
     (13171, [Entry 1 False, REDUCE sym_class_decl 11 0 1871]),
     (13173, [Entry 1 True, REDUCE sym_class_decl 11 0 986]),
     (13175, [Entry 1 False, REDUCE sym_class_decl 11 0 986]),
     (13177, [Entry 1 True, REDUCE sym_class_decl 11 0 1872]),
     (13179, [Entry 1 False, REDUCE sym_class_decl 11 0 1872]),
     (13181, [Entry 1 True, REDUCE sym_class_decl 9 0 1009]),
     (13183, [Entry 1 False, REDUCE sym_class_decl 9 0 1009]),
     (13185, [Entry 1 True, REDUCE sym_class_decl 11 0 1873]),
     (13187, [Entry 1 False, REDUCE sym_class_decl 11 0 1873]),
     (13189, [Entry 1 True, REDUCE sym_class_decl 11 0 1427]),
     (13191, [Entry 1 False, REDUCE sym_class_decl 11 0 1427]),
     (13193, [Entry 1 True, REDUCE sym_class_decl 11 0 1428]),
     (13195, [Entry 1 False, REDUCE sym_class_decl 11 0 1428]),
     (13197, [Entry 1 True, REDUCE sym_class_decl 11 0 1429]),
     (13199, [Entry 1 False, REDUCE sym_class_decl 11 0 1429]),
     (13201, [Entry 1 True, REDUCE sym_class_decl 11 0 1430]),
     (13203, [Entry 1 False, REDUCE sym_class_decl 11 0 1430]),
     (13205, [Entry 1 True, REDUCE sym_class_decl 11 0 1874]),
     (13207, [Entry 1 False, REDUCE sym_class_decl 11 0 1874]),
     (13209, [Entry 1 True, REDUCE sym_class_decl 11 0 993]),
     (13211, [Entry 1 False, REDUCE sym_class_decl 11 0 993]),
     (13213, [Entry 1 True, REDUCE sym_class_decl 11 0 1875]),
     (13215, [Entry 1 False, REDUCE sym_class_decl 11 0 1875]),
     (13217, [Entry 1 True, REDUCE sym_fb_decl 9 0 535]),
     (13219, [Entry 1 False, REDUCE sym_fb_decl 9 0 535]),
     (13221, [Entry 1 True, REDUCE sym_class_decl 11 0 1876]),
     (13223, [Entry 1 False, REDUCE sym_class_decl 11 0 1876]),
     (13225, [Entry 1 True, REDUCE sym_class_decl 11 0 1431]),
     (13227, [Entry 1 False, REDUCE sym_class_decl 11 0 1431]),
     (13229, [Entry 1 True, REDUCE sym_class_decl 11 0 1432]),
     (13231, [Entry 1 False, REDUCE sym_class_decl 11 0 1432]),
     (13233, [Entry 1 True, REDUCE sym_class_decl 11 0 1877]),
     (13235, [Entry 1 False, REDUCE sym_class_decl 11 0 1877]),
     (13237, [Entry 1 True, REDUCE sym_fb_decl 9 0 882]),
     (13239, [Entry 1 False, REDUCE sym_fb_decl 9 0 882]),
     (13241, [Entry 1 True, REDUCE sym_fb_decl 7 0 347]),
     (13243, [Entry 1 False, REDUCE sym_fb_decl 7 0 347]),
     (13245, [Entry 1 True, REDUCE sym_fb_decl 9 0 907]),
     (13247, [Entry 1 False, REDUCE sym_fb_decl 9 0 907]),
     (13249, [Entry 1 True, REDUCE sym_class_decl 11 0 1878]),
     (13251, [Entry 1 False, REDUCE sym_class_decl 11 0 1878]),
     (13253, [Entry 1 True, REDUCE sym_class_decl 11 0 1433]),
     (13255, [Entry 1 False, REDUCE sym_class_decl 11 0 1433]),
     (13257, [Entry 1 True, REDUCE sym_class_decl 11 0 1434]),
     (13259, [Entry 1 False, REDUCE sym_class_decl 11 0 1434]),
     (13261, [Entry 1 True, REDUCE sym_class_decl 11 0 1879]),
     (13263, [Entry 1 False, REDUCE sym_class_decl 11 0 1879]),
     (13265, [Entry 1 True, REDUCE sym_class_decl 11 0 1435]),
     (13267, [Entry 1 False, REDUCE sym_class_decl 11 0 1435]),
     (13269, [Entry 1 True, REDUCE sym_class_decl 11 0 1436]),
     (13271, [Entry 1 False, REDUCE sym_class_decl 11 0 1436]),
     (13273, [Entry 1 True, REDUCE sym_class_decl 11 0 1437]),
     (13275, [Entry 1 False, REDUCE sym_class_decl 11 0 1437]),
     (13277, [Entry 1 True, REDUCE sym_class_decl 11 0 1880]),
     (13279, [Entry 1 False, REDUCE sym_class_decl 11 0 1880]),
     (13281, [Entry 1 True, REDUCE sym_class_decl 11 0 1438]),
     (13283, [Entry 1 False, REDUCE sym_class_decl 11 0 1438]),
     (13285, [Entry 1 True, REDUCE sym_class_decl 11 0 1439]),
     (13287, [Entry 1 False, REDUCE sym_class_decl 11 0 1439]),
     (13289, [Entry 1 True, REDUCE sym_class_decl 11 0 1440]),
     (13291, [Entry 1 False, REDUCE sym_class_decl 11 0 1440]),
     (13293, [Entry 1 True, REDUCE sym_class_decl 11 0 1881]),
     (13295, [Entry 1 False, REDUCE sym_class_decl 11 0 1881]),
     (13297, [Entry 1 True, REDUCE sym_class_decl 11 0 1003]),
     (13299, [Entry 1 False, REDUCE sym_class_decl 11 0 1003]),
     (13301, [Entry 1 True, REDUCE sym_class_decl 11 0 1882]),
     (13303, [Entry 1 False, REDUCE sym_class_decl 11 0 1882]),
     (13305, [Entry 1 True, REDUCE sym_class_decl 9 0 1010]),
     (13307, [Entry 1 False, REDUCE sym_class_decl 9 0 1010]),
     (13309, [Entry 1 True, REDUCE sym_class_decl 11 0 1883]),
     (13311, [Entry 1 False, REDUCE sym_class_decl 11 0 1883]),
     (13313, [Entry 1 True, REDUCE sym_class_decl 11 0 1441]),
     (13315, [Entry 1 False, REDUCE sym_class_decl 11 0 1441]),
     (13317, [Entry 1 True, REDUCE sym_class_decl 11 0 1442]),
     (13319, [Entry 1 False, REDUCE sym_class_decl 11 0 1442]),
     (13321, [Entry 1 True, REDUCE sym_class_decl 11 0 1884]),
     (13323, [Entry 1 False, REDUCE sym_class_decl 11 0 1884]),
     (13325, [Entry 1 True, REDUCE sym_class_decl 9 0 633]),
     (13327, [Entry 1 False, REDUCE sym_class_decl 9 0 633]),
     (13329, [Entry 1 True, REDUCE sym_class_decl 9 0 1011]),
     (13331, [Entry 1 False, REDUCE sym_class_decl 9 0 1011]),
     (13333, [Entry 1 True, REDUCE sym_fb_decl 9 0 883]),
     (13335, [Entry 1 False, REDUCE sym_fb_decl 9 0 883]),
     (13337, [Entry 1 True, REDUCE sym_class_decl 11 0 1885]),
     (13339, [Entry 1 False, REDUCE sym_class_decl 11 0 1885]),
     (13341, [Entry 1 True, REDUCE sym_class_decl 11 0 1443]),
     (13343, [Entry 1 False, REDUCE sym_class_decl 11 0 1443]),
     (13345, [Entry 1 True, REDUCE sym_class_decl 11 0 1444]),
     (13347, [Entry 1 False, REDUCE sym_class_decl 11 0 1444]),
     (13349, [Entry 1 True, REDUCE sym_class_decl 11 0 1886]),
     (13351, [Entry 1 False, REDUCE sym_class_decl 11 0 1886]),
     (13353, [Entry 1 True, REDUCE sym_class_decl 11 0 1445]),
     (13355, [Entry 1 False, REDUCE sym_class_decl 11 0 1445]),
     (13357, [Entry 1 True, REDUCE sym_class_decl 11 0 1446]),
     (13359, [Entry 1 False, REDUCE sym_class_decl 11 0 1446]),
     (13361, [Entry 1 True, REDUCE sym_class_decl 11 0 1447]),
     (13363, [Entry 1 False, REDUCE sym_class_decl 11 0 1447]),
     (13365, [Entry 1 True, REDUCE sym_class_decl 11 0 1887]),
     (13367, [Entry 1 False, REDUCE sym_class_decl 11 0 1887]),
     (13369, [Entry 1 True, REDUCE sym_class_decl 11 0 1448]),
     (13371, [Entry 1 False, REDUCE sym_class_decl 11 0 1448]),
     (13373, [Entry 1 True, REDUCE sym_class_decl 11 0 1449]),
     (13375, [Entry 1 False, REDUCE sym_class_decl 11 0 1449]),
     (13377, [Entry 1 True, REDUCE sym_class_decl 11 0 1888]),
     (13379, [Entry 1 False, REDUCE sym_class_decl 11 0 1888]),
     (13381, [Entry 1 True, REDUCE sym_fb_decl 7 0 348]),
     (13383, [Entry 1 False, REDUCE sym_fb_decl 7 0 348]),
     (13385, [Entry 1 True, REDUCE sym_fb_decl 9 0 884]),
     (13387, [Entry 1 False, REDUCE sym_fb_decl 9 0 884]),
     (13389, [Entry 1 True, REDUCE sym_class_decl 9 0 634]),
     (13391, [Entry 1 False, REDUCE sym_class_decl 9 0 634]),
     (13393, [Entry 1 True, REDUCE sym_class_decl 11 0 1889]),
     (13395, [Entry 1 False, REDUCE sym_class_decl 11 0 1889]),
     (13397, [Entry 1 True, REDUCE sym_class_decl 11 0 1450]),
     (13399, [Entry 1 False, REDUCE sym_class_decl 11 0 1450]),
     (13401, [Entry 1 True, REDUCE sym_class_decl 11 0 1890]),
     (13403, [Entry 1 False, REDUCE sym_class_decl 11 0 1890]),
     (13405, [Entry 1 True, REDUCE sym_class_decl 9 0 1012]),
     (13407, [Entry 1 False, REDUCE sym_class_decl 9 0 1012]),
     (13409, [Entry 1 True, REDUCE sym_func_decl 6 0 215]),
     (13411, [Entry 1 False, REDUCE sym_func_decl 6 0 215]),
     (13413, [Entry 1 True, REDUCE sym_class_decl 9 0 83]),
     (13415, [Entry 1 False, REDUCE sym_class_decl 9 0 83]),
     (13417, [Entry 1 True, REDUCE sym_class_decl 11 0 1451])]"

lemma ts_parse_actions_44_tiled: "tiled_from 13119 ts_parse_actions_44 \<and> after_runs 13119 ts_parse_actions_44 = 13419"
  unfolding ts_parse_actions_44_def by (simp cong: runs_weak)

lemma ts_parse_actions_44_ok: "list_all (\<lambda>(i, es). group_ok es) ts_parse_actions_44"
  unfolding ts_parse_actions_44_def
  by (simp add: group_ok_simps entry_action_ok_simps del: One_nat_def group_ok.simps cong: list_all_weak)

text \<open>Lines 487321 to 487470.\<close>

definition ts_parse_actions_45 :: "(nat \<times> TSParseActionEntry list) list" where
  "ts_parse_actions_45 =
    [(13419, [Entry 1 False, REDUCE sym_class_decl 11 0 1451]),
     (13421, [Entry 1 True, REDUCE sym_class_decl 11 0 1891]),
     (13423, [Entry 1 False, REDUCE sym_class_decl 11 0 1891]),
     (13425, [Entry 1 True, REDUCE sym_class_decl 11 0 632]),
     (13427, [Entry 1 False, REDUCE sym_class_decl 11 0 632]),
     (13429, [Entry 1 True, REDUCE sym_class_decl 11 0 1892]),
     (13431, [Entry 1 False, REDUCE sym_class_decl 11 0 1892]),
     (13433, [Entry 1 True, REDUCE sym_class_decl 9 0 1013]),
     (13435, [Entry 1 False, REDUCE sym_class_decl 9 0 1013]),
     (13437, [Entry 1 True, REDUCE sym_class_decl 11 0 1893]),
     (13439, [Entry 1 False, REDUCE sym_class_decl 11 0 1893]),
     (13441, [Entry 1 True, REDUCE sym_class_decl 11 0 1452]),
     (13443, [Entry 1 False, REDUCE sym_class_decl 11 0 1452]),
     (13445, [Entry 1 True, REDUCE sym_class_decl 11 0 1453]),
     (13447, [Entry 1 False, REDUCE sym_class_decl 11 0 1453]),
     (13449, [Entry 1 True, REDUCE sym_class_decl 11 0 1894]),
     (13451, [Entry 1 False, REDUCE sym_class_decl 11 0 1894]),
     (13453, [Entry 1 True, REDUCE sym_class_decl 11 0 1011]),
     (13455, [Entry 1 False, REDUCE sym_class_decl 11 0 1011]),
     (13457, [Entry 1 True, REDUCE sym_class_decl 11 0 1895]),
     (13459, [Entry 1 False, REDUCE sym_class_decl 11 0 1895]),
     (13461, [Entry 1 True, REDUCE sym_fb_decl 7 0 325]),
     (13463, [Entry 1 False, REDUCE sym_fb_decl 7 0 325]),
     (13465, [Entry 1 True, REDUCE sym_class_decl 11 0 1896]),
     (13467, [Entry 1 False, REDUCE sym_class_decl 11 0 1896]),
     (13469, [Entry 1 True, REDUCE sym_class_decl 11 0 1454]),
     (13471, [Entry 1 False, REDUCE sym_class_decl 11 0 1454]),
     (13473, [Entry 1 True, REDUCE sym_class_decl 11 0 1455]),
     (13475, [Entry 1 False, REDUCE sym_class_decl 11 0 1455]),
     (13477, [Entry 1 True, REDUCE sym_class_decl 11 0 1456]),
     (13479, [Entry 1 False, REDUCE sym_class_decl 11 0 1456]),
     (13481, [Entry 1 True, REDUCE sym_class_decl 11 0 1457]),
     (13483, [Entry 1 False, REDUCE sym_class_decl 11 0 1457]),
     (13485, [Entry 1 True, REDUCE sym_class_decl 11 0 1344]),
     (13487, [Entry 1 False, REDUCE sym_class_decl 11 0 1344]),
     (13489, [Entry 1 True, REDUCE sym_class_decl 11 0 1897]),
     (13491, [Entry 1 False, REDUCE sym_class_decl 11 0 1897]),
     (13493, [Entry 1 True, REDUCE sym_class_decl 11 0 1458]),
     (13495, [Entry 1 False, REDUCE sym_class_decl 11 0 1458]),
     (13497, [Entry 1 True, REDUCE sym_class_decl 11 0 1459]),
     (13499, [Entry 1 False, REDUCE sym_class_decl 11 0 1459]),
     (13501, [Entry 1 True, REDUCE sym_class_decl 11 0 1378]),
     (13503, [Entry 1 False, REDUCE sym_class_decl 11 0 1378]),
     (13505, [Entry 1 True, REDUCE sym_class_decl 11 0 1898]),
     (13507, [Entry 1 False, REDUCE sym_class_decl 11 0 1898]),
     (13509, [Entry 1 True, REDUCE sym_class_decl 11 0 1460]),
     (13511, [Entry 1 False, REDUCE sym_class_decl 11 0 1460]),
     (13513, [Entry 1 True, REDUCE sym_class_decl 11 0 1387]),
     (13515, [Entry 1 False, REDUCE sym_class_decl 11 0 1387]),
     (13517, [Entry 1 True, REDUCE sym_class_decl 11 0 1899]),
     (13519, [Entry 1 False, REDUCE sym_class_decl 11 0 1899]),
     (13521, [Entry 1 True, REDUCE sym_class_decl 11 0 949]),
     (13523, [Entry 1 False, REDUCE sym_class_decl 11 0 949]),
     (13525, [Entry 1 True, REDUCE sym_class_decl 11 0 1843]),
     (13527, [Entry 1 False, REDUCE sym_class_decl 11 0 1843]),
     (13529, [Entry 1 True, REDUCE sym_class_decl 9 0 1014]),
     (13531, [Entry 1 False, REDUCE sym_class_decl 9 0 1014]),
     (13533, [Entry 1 True, REDUCE sym_class_decl 11 0 1900]),
     (13535, [Entry 1 False, REDUCE sym_class_decl 11 0 1900]),
     (13537, [Entry 1 True, REDUCE sym_class_decl 11 0 1461]),
     (13539, [Entry 1 False, REDUCE sym_class_decl 11 0 1461]),
     (13541, [Entry 1 True, REDUCE sym_class_decl 11 0 1462]),
     (13543, [Entry 1 False, REDUCE sym_class_decl 11 0 1462]),
     (13545, [Entry 1 True, REDUCE sym_class_decl 11 0 1463]),
     (13547, [Entry 1 False, REDUCE sym_class_decl 11 0 1463]),
     (13549, [Entry 1 True, REDUCE sym_class_decl 11 0 1464]),
     (13551, [Entry 1 False, REDUCE sym_class_decl 11 0 1464]),
     (13553, [Entry 1 True, REDUCE sym_class_decl 11 0 1465]),
     (13555, [Entry 1 False, REDUCE sym_class_decl 11 0 1465]),
     (13557, [Entry 1 True, REDUCE sym_class_decl 11 0 1901]),
     (13559, [Entry 1 False, REDUCE sym_class_decl 11 0 1901]),
     (13561, [Entry 1 True, REDUCE sym_class_decl 11 0 1466]),
     (13563, [Entry 1 False, REDUCE sym_class_decl 11 0 1466]),
     (13565, [Entry 1 True, REDUCE sym_class_decl 11 0 1467]),
     (13567, [Entry 1 False, REDUCE sym_class_decl 11 0 1467]),
     (13569, [Entry 1 True, REDUCE sym_class_decl 11 0 1902]),
     (13571, [Entry 1 False, REDUCE sym_class_decl 11 0 1902]),
     (13573, [Entry 1 True, REDUCE sym_class_decl 11 0 1028]),
     (13575, [Entry 1 False, REDUCE sym_class_decl 11 0 1028]),
     (13577, [Entry 1 True, REDUCE sym_class_decl 11 0 1903]),
     (13579, [Entry 1 False, REDUCE sym_class_decl 11 0 1903]),
     (13581, [Entry 1 True, REDUCE sym_class_decl 9 0 635]),
     (13583, [Entry 1 False, REDUCE sym_class_decl 9 0 635]),
     (13585, [Entry 1 True, REDUCE sym_class_decl 11 0 1904]),
     (13587, [Entry 1 False, REDUCE sym_class_decl 11 0 1904]),
     (13589, [Entry 1 True, REDUCE sym_class_decl 11 0 1468]),
     (13591, [Entry 1 False, REDUCE sym_class_decl 11 0 1468]),
     (13593, [Entry 1 True, REDUCE sym_class_decl 11 0 1469]),
     (13595, [Entry 1 False, REDUCE sym_class_decl 11 0 1469]),
     (13597, [Entry 1 True, REDUCE sym_class_decl 11 0 1470]),
     (13599, [Entry 1 False, REDUCE sym_class_decl 11 0 1470]),
     (13601, [Entry 1 True, REDUCE sym_class_decl 11 0 1471]),
     (13603, [Entry 1 False, REDUCE sym_class_decl 11 0 1471]),
     (13605, [Entry 1 True, REDUCE sym_class_decl 11 0 1905]),
     (13607, [Entry 1 False, REDUCE sym_class_decl 11 0 1905]),
     (13609, [Entry 1 True, REDUCE sym_class_decl 11 0 1035]),
     (13611, [Entry 1 False, REDUCE sym_class_decl 11 0 1035]),
     (13613, [Entry 1 True, REDUCE sym_class_decl 11 0 1906]),
     (13615, [Entry 1 False, REDUCE sym_class_decl 11 0 1906]),
     (13617, [Entry 1 True, REDUCE sym_class_decl 9 0 636]),
     (13619, [Entry 1 False, REDUCE sym_class_decl 9 0 636]),
     (13621, [Entry 1 True, REDUCE sym_class_decl 11 0 1907]),
     (13623, [Entry 1 False, REDUCE sym_class_decl 11 0 1907]),
     (13625, [Entry 1 True, REDUCE sym_class_decl 11 0 1472]),
     (13627, [Entry 1 False, REDUCE sym_class_decl 11 0 1472]),
     (13629, [Entry 1 True, REDUCE sym_class_decl 11 0 1473]),
     (13631, [Entry 1 False, REDUCE sym_class_decl 11 0 1473]),
     (13633, [Entry 1 True, REDUCE sym_class_decl 11 0 1908]),
     (13635, [Entry 1 False, REDUCE sym_class_decl 11 0 1908]),
     (13637, [Entry 1 True, REDUCE sym_class_decl 9 0 546]),
     (13639, [Entry 1 False, REDUCE sym_class_decl 9 0 546]),
     (13641, [Entry 1 True, REDUCE sym_class_decl 9 0 1015]),
     (13643, [Entry 1 False, REDUCE sym_class_decl 9 0 1015]),
     (13645, [Entry 1 True, REDUCE sym_class_decl 9 0 311]),
     (13647, [Entry 1 False, REDUCE sym_class_decl 9 0 311]),
     (13649, [Entry 1 True, REDUCE sym_class_decl 11 0 1909]),
     (13651, [Entry 1 False, REDUCE sym_class_decl 11 0 1909]),
     (13653, [Entry 1 True, REDUCE sym_class_decl 11 0 1474]),
     (13655, [Entry 1 False, REDUCE sym_class_decl 11 0 1474]),
     (13657, [Entry 1 True, REDUCE sym_class_decl 11 0 1475]),
     (13659, [Entry 1 False, REDUCE sym_class_decl 11 0 1475]),
     (13661, [Entry 1 True, REDUCE sym_class_decl 11 0 1910]),
     (13663, [Entry 1 False, REDUCE sym_class_decl 11 0 1910]),
     (13665, [Entry 1 True, REDUCE sym_class_decl 11 0 1476]),
     (13667, [Entry 1 False, REDUCE sym_class_decl 11 0 1476]),
     (13669, [Entry 1 True, REDUCE sym_class_decl 11 0 1477]),
     (13671, [Entry 1 False, REDUCE sym_class_decl 11 0 1477]),
     (13673, [Entry 1 True, REDUCE sym_class_decl 11 0 1478]),
     (13675, [Entry 1 False, REDUCE sym_class_decl 11 0 1478]),
     (13677, [Entry 1 True, REDUCE sym_class_decl 11 0 1911]),
     (13679, [Entry 1 False, REDUCE sym_class_decl 11 0 1911]),
     (13681, [Entry 1 True, REDUCE sym_class_decl 11 0 1479]),
     (13683, [Entry 1 False, REDUCE sym_class_decl 11 0 1479]),
     (13685, [Entry 1 True, REDUCE sym_func_decl 6 0 216]),
     (13687, [Entry 1 False, REDUCE sym_func_decl 6 0 216]),
     (13689, [Entry 1 True, REDUCE sym_func_decl 6 0 217]),
     (13691, [Entry 1 False, REDUCE sym_func_decl 6 0 217]),
     (13693, [Entry 1 True, REDUCE sym_fb_decl 8 0 548]),
     (13695, [Entry 1 False, REDUCE sym_fb_decl 8 0 548]),
     (13697, [Entry 1 True, REDUCE sym_class_decl 9 0 897]),
     (13699, [Entry 1 False, REDUCE sym_class_decl 9 0 897]),
     (13701, [Entry 1 True, REDUCE sym_fb_decl 11 0 1912]),
     (13703, [Entry 1 False, REDUCE sym_fb_decl 11 0 1912]),
     (13705, [Entry 1 True, REDUCE sym_fb_decl 11 0 1913]),
     (13707, [Entry 1 False, REDUCE sym_fb_decl 11 0 1913]),
     (13709, [Entry 1 True, REDUCE sym_fb_decl 11 0 1487]),
     (13711, [Entry 1 False, REDUCE sym_fb_decl 11 0 1487]),
     (13713, [Entry 1 True, REDUCE sym_fb_decl 11 0 1914]),
     (13715, [Entry 1 False, REDUCE sym_fb_decl 11 0 1914]),
     (13717, [Entry 1 True, REDUCE sym_fb_decl 11 0 1915])]"

lemma ts_parse_actions_45_tiled: "tiled_from 13419 ts_parse_actions_45 \<and> after_runs 13419 ts_parse_actions_45 = 13719"
  unfolding ts_parse_actions_45_def by (simp cong: runs_weak)

lemma ts_parse_actions_45_ok: "list_all (\<lambda>(i, es). group_ok es) ts_parse_actions_45"
  unfolding ts_parse_actions_45_def
  by (simp add: group_ok_simps entry_action_ok_simps del: One_nat_def group_ok.simps cong: list_all_weak)

text \<open>Lines 487471 to 487620.\<close>

definition ts_parse_actions_46 :: "(nat \<times> TSParseActionEntry list) list" where
  "ts_parse_actions_46 =
    [(13719, [Entry 1 False, REDUCE sym_fb_decl 11 0 1915]),
     (13721, [Entry 1 True, REDUCE sym_fb_decl 11 0 1916]),
     (13723, [Entry 1 False, REDUCE sym_fb_decl 11 0 1916]),
     (13725, [Entry 1 True, REDUCE sym_fb_decl 11 0 1491]),
     (13727, [Entry 1 False, REDUCE sym_fb_decl 11 0 1491]),
     (13729, [Entry 1 True, REDUCE sym_fb_decl 11 0 1917]),
     (13731, [Entry 1 False, REDUCE sym_fb_decl 11 0 1917]),
     (13733, [Entry 1 True, REDUCE sym_fb_decl 11 0 1918]),
     (13735, [Entry 1 False, REDUCE sym_fb_decl 11 0 1918]),
     (13737, [Entry 1 True, REDUCE sym_fb_decl 11 0 1493]),
     (13739, [Entry 1 False, REDUCE sym_fb_decl 11 0 1493]),
     (13741, [Entry 1 True, REDUCE sym_fb_decl 11 0 1919]),
     (13743, [Entry 1 False, REDUCE sym_fb_decl 11 0 1919]),
     (13745, [Entry 1 True, REDUCE sym_fb_decl 11 0 1920]),
     (13747, [Entry 1 False, REDUCE sym_fb_decl 11 0 1920]),
     (13749, [Entry 1 True, REDUCE sym_fb_decl 8 0 549]),
     (13751, [Entry 1 False, REDUCE sym_fb_decl 8 0 549]),
     (13753, [Entry 1 True, REDUCE sym_fb_decl 11 0 1494]),
     (13755, [Entry 1 False, REDUCE sym_fb_decl 11 0 1494]),
     (13757, [Entry 1 True, REDUCE sym_fb_decl 11 0 1921]),
     (13759, [Entry 1 False, REDUCE sym_fb_decl 11 0 1921]),
     (13761, [Entry 1 True, REDUCE sym_fb_decl 11 0 1922]),
     (13763, [Entry 1 False, REDUCE sym_fb_decl 11 0 1922]),
     (13765, [Entry 1 True, REDUCE sym_fb_decl 11 0 1923]),
     (13767, [Entry 1 False, REDUCE sym_fb_decl 11 0 1923]),
     (13769, [Entry 1 True, REDUCE sym_fb_decl 11 0 1498]),
     (13771, [Entry 1 False, REDUCE sym_fb_decl 11 0 1498]),
     (13773, [Entry 1 True, REDUCE sym_fb_decl 11 0 1924]),
     (13775, [Entry 1 False, REDUCE sym_fb_decl 11 0 1924]),
     (13777, [Entry 1 True, REDUCE sym_fb_decl 11 0 1925]),
     (13779, [Entry 1 False, REDUCE sym_fb_decl 11 0 1925]),
     (13781, [Entry 1 True, REDUCE sym_fb_decl 8 0 314]),
     (13783, [Entry 1 False, REDUCE sym_fb_decl 8 0 314]),
     (13785, [Entry 1 True, REDUCE sym_fb_decl 11 0 1499]),
     (13787, [Entry 1 False, REDUCE sym_fb_decl 11 0 1499]),
     (13789, [Entry 1 True, REDUCE sym_fb_decl 11 0 1926]),
     (13791, [Entry 1 False, REDUCE sym_fb_decl 11 0 1926]),
     (13793, [Entry 1 True, REDUCE sym_fb_decl 11 0 1927]),
     (13795, [Entry 1 False, REDUCE sym_fb_decl 11 0 1927]),
     (13797, [Entry 1 True, REDUCE sym_fb_decl 8 0 550]),
     (13799, [Entry 1 False, REDUCE sym_fb_decl 8 0 550]),
     (13801, [Entry 1 True, REDUCE sym_fb_decl 8 0 551]),
     (13803, [Entry 1 False, REDUCE sym_fb_decl 8 0 551]),
     (13805, [Entry 1 True, REDUCE sym_fb_decl 11 0 1928]),
     (13807, [Entry 1 False, REDUCE sym_fb_decl 11 0 1928]),
     (13809, [Entry 1 True, REDUCE sym_fb_decl 8 0 316]),
     (13811, [Entry 1 False, REDUCE sym_fb_decl 8 0 316]),
     (13813, [Entry 1 True, REDUCE sym_fb_decl 11 0 1064]),
     (13815, [Entry 1 False, REDUCE sym_fb_decl 11 0 1064]),
     (13817, [Entry 1 True, REDUCE sym_fb_decl 11 0 1929]),
     (13819, [Entry 1 False, REDUCE sym_fb_decl 11 0 1929]),
     (13821, [Entry 1 True, REDUCE sym_fb_decl 8 0 552]),
     (13823, [Entry 1 False, REDUCE sym_fb_decl 8 0 552]),
     (13825, [Entry 1 True, REDUCE sym_fb_decl 8 0 553]),
     (13827, [Entry 1 False, REDUCE sym_fb_decl 8 0 553]),
     (13829, [Entry 1 True, REDUCE sym_fb_decl 11 0 1930]),
     (13831, [Entry 1 False, REDUCE sym_fb_decl 11 0 1930]),
     (13833, [Entry 1 True, REDUCE sym_func_decl 6 0 218]),
     (13835, [Entry 1 False, REDUCE sym_func_decl 6 0 218]),
     (13837, [Entry 1 True, REDUCE sym_fb_decl 8 0 317]),
     (13839, [Entry 1 False, REDUCE sym_fb_decl 8 0 317]),
     (13841, [Entry 1 True, REDUCE sym_fb_decl 8 0 554]),
     (13843, [Entry 1 False, REDUCE sym_fb_decl 8 0 554]),
     (13845, [Entry 1 True, REDUCE sym_fb_decl 11 0 1931]),
     (13847, [Entry 1 False, REDUCE sym_fb_decl 11 0 1931]),
     (13849, [Entry 1 True, REDUCE sym_fb_decl 8 0 555]),
     (13851, [Entry 1 False, REDUCE sym_fb_decl 8 0 555]),
     (13853, [Entry 1 True, REDUCE sym_fb_decl 11 0 1500]),
     (13855, [Entry 1 False, REDUCE sym_fb_decl 11 0 1500]),
     (13857, [Entry 1 True, REDUCE sym_fb_decl 11 0 1932]),
     (13859, [Entry 1 False, REDUCE sym_fb_decl 11 0 1932]),
     (13861, [Entry 1 True, REDUCE sym_fb_decl 11 0 1933]),
     (13863, [Entry 1 False, REDUCE sym_fb_decl 11 0 1933]),
     (13865, [Entry 1 True, REDUCE sym_fb_decl 11 0 1934]),
     (13867, [Entry 1 False, REDUCE sym_fb_decl 11 0 1934]),
     (13869, [Entry 1 True, REDUCE sym_fb_decl 11 0 1505]),
     (13871, [Entry 1 False, REDUCE sym_fb_decl 11 0 1505]),
     (13873, [Entry 1 True, REDUCE sym_fb_decl 11 0 1935]),
     (13875, [Entry 1 False, REDUCE sym_fb_decl 11 0 1935]),
     (13877, [Entry 1 True, REDUCE sym_fb_decl 11 0 1936]),
     (13879, [Entry 1 False, REDUCE sym_fb_decl 11 0 1936]),
     (13881, [Entry 1 True, REDUCE sym_fb_decl 11 0 1507]),
     (13883, [Entry 1 False, REDUCE sym_fb_decl 11 0 1507]),
     (13885, [Entry 1 True, REDUCE sym_fb_decl 11 0 1937]),
     (13887, [Entry 1 False, REDUCE sym_fb_decl 11 0 1937]),
     (13889, [Entry 1 True, REDUCE sym_fb_decl 11 0 1938]),
     (13891, [Entry 1 False, REDUCE sym_fb_decl 11 0 1938]),
     (13893, [Entry 1 True, REDUCE sym_func_decl 6 0 219]),
     (13895, [Entry 1 False, REDUCE sym_func_decl 6 0 219]),
     (13897, [Entry 1 True, REDUCE sym_fb_decl 9 0 539]),
     (13899, [Entry 1 False, REDUCE sym_fb_decl 9 0 539]),
     (13901, [Entry 1 True, REDUCE sym_fb_decl 11 0 1939]),
     (13903, [Entry 1 False, REDUCE sym_fb_decl 11 0 1939]),
     (13905, [Entry 1 True, REDUCE sym_func_decl 6 0 220]),
     (13907, [Entry 1 False, REDUCE sym_func_decl 6 0 220]),
     (13909, [Entry 1 True, REDUCE sym_class_decl 5 0 84]),
     (13911, [Entry 1 False, REDUCE sym_class_decl 5 0 84]),
     (13913, [Entry 1 True, REDUCE sym_class_decl 5 0 73]),
     (13915, [Entry 1 False, REDUCE sym_class_decl 5 0 73]),
     (13917, [Entry 1 True, REDUCE sym_fb_decl 8 0 556]),
     (13919, [Entry 1 False, REDUCE sym_fb_decl 8 0 556]),
     (13921, [Entry 1 True, REDUCE sym_fb_decl 8 0 318]),
     (13923, [Entry 1 False, REDUCE sym_fb_decl 8 0 318]),
     (13925, [Entry 1 True, REDUCE sym_fb_decl 8 0 557]),
     (13927, [Entry 1 False, REDUCE sym_fb_decl 8 0 557]),
     (13929, [Entry 1 True, REDUCE sym_fb_decl 8 0 558]),
     (13931, [Entry 1 False, REDUCE sym_fb_decl 8 0 558]),
     (13933, [Entry 1 True, REDUCE sym_fb_decl 11 0 1940]),
     (13935, [Entry 1 False, REDUCE sym_fb_decl 11 0 1940]),
     (13937, [Entry 1 True, REDUCE sym_fb_decl 6 0 99]),
     (13939, [Entry 1 False, REDUCE sym_fb_decl 6 0 99]),
     (13941, [Entry 1 True, REDUCE sym_fb_decl 11 0 1941]),
     (13943, [Entry 1 False, REDUCE sym_fb_decl 11 0 1941]),
     (13945, [Entry 1 True, REDUCE sym_fb_decl 11 0 1510]),
     (13947, [Entry 1 False, REDUCE sym_fb_decl 11 0 1510]),
     (13949, [Entry 1 True, REDUCE sym_fb_decl 11 0 1942]),
     (13951, [Entry 1 False, REDUCE sym_fb_decl 11 0 1942]),
     (13953, [Entry 1 True, REDUCE sym_fb_decl 11 0 1943]),
     (13955, [Entry 1 False, REDUCE sym_fb_decl 11 0 1943]),
     (13957, [Entry 1 True, REDUCE sym_fb_decl 11 0 1512]),
     (13959, [Entry 1 False, REDUCE sym_fb_decl 11 0 1512]),
     (13961, [Entry 1 True, REDUCE sym_fb_decl 11 0 1944]),
     (13963, [Entry 1 False, REDUCE sym_fb_decl 11 0 1944]),
     (13965, [Entry 1 True, REDUCE sym_fb_decl 11 0 1945]),
     (13967, [Entry 1 False, REDUCE sym_fb_decl 11 0 1945]),
     (13969, [Entry 1 True, REDUCE sym_fb_decl 8 0 319]),
     (13971, [Entry 1 False, REDUCE sym_fb_decl 8 0 319]),
     (13973, [Entry 1 True, REDUCE sym_fb_decl 11 0 1513]),
     (13975, [Entry 1 False, REDUCE sym_fb_decl 11 0 1513]),
     (13977, [Entry 1 True, REDUCE sym_fb_decl 11 0 1946]),
     (13979, [Entry 1 False, REDUCE sym_fb_decl 11 0 1946]),
     (13981, [Entry 1 True, REDUCE sym_fb_decl 11 0 1947]),
     (13983, [Entry 1 False, REDUCE sym_fb_decl 11 0 1947]),
     (13985, [Entry 1 True, REDUCE sym_fb_decl 11 0 1514]),
     (13987, [Entry 1 False, REDUCE sym_fb_decl 11 0 1514]),
     (13989, [Entry 1 True, REDUCE sym_fb_decl 11 0 1948]),
     (13991, [Entry 1 False, REDUCE sym_fb_decl 11 0 1948]),
     (13993, [Entry 1 True, REDUCE sym_fb_decl 11 0 1949]),
     (13995, [Entry 1 False, REDUCE sym_fb_decl 11 0 1949]),
     (13997, [Entry 1 True, REDUCE sym_fb_decl 8 0 559]),
     (13999, [Entry 1 False, REDUCE sym_fb_decl 8 0 559]),
     (14001, [Entry 1 True, REDUCE sym_fb_decl 11 0 1515]),
     (14003, [Entry 1 False, REDUCE sym_fb_decl 11 0 1515]),
     (14005, [Entry 1 True, REDUCE sym_fb_decl 11 0 1950]),
     (14007, [Entry 1 False, REDUCE sym_fb_decl 11 0 1950]),
     (14009, [Entry 1 True, REDUCE sym_fb_decl 11 0 1951]),
     (14011, [Entry 1 False, REDUCE sym_fb_decl 11 0 1951]),
     (14013, [Entry 1 True, REDUCE sym_fb_decl 8 0 560]),
     (14015, [Entry 1 False, REDUCE sym_fb_decl 8 0 560]),
     (14017, [Entry 1 True, REDUCE sym_class_decl 9 0 1016])]"

lemma ts_parse_actions_46_tiled: "tiled_from 13719 ts_parse_actions_46 \<and> after_runs 13719 ts_parse_actions_46 = 14019"
  unfolding ts_parse_actions_46_def by (simp cong: runs_weak)

lemma ts_parse_actions_46_ok: "list_all (\<lambda>(i, es). group_ok es) ts_parse_actions_46"
  unfolding ts_parse_actions_46_def
  by (simp add: group_ok_simps entry_action_ok_simps del: One_nat_def group_ok.simps cong: list_all_weak)

text \<open>Lines 487621 to 487770.\<close>

definition ts_parse_actions_47 :: "(nat \<times> TSParseActionEntry list) list" where
  "ts_parse_actions_47 =
    [(14019, [Entry 1 False, REDUCE sym_class_decl 9 0 1016]),
     (14021, [Entry 1 True, REDUCE sym_fb_decl 11 0 1952]),
     (14023, [Entry 1 False, REDUCE sym_fb_decl 11 0 1952]),
     (14025, [Entry 1 True, REDUCE sym_class_decl 9 0 637]),
     (14027, [Entry 1 False, REDUCE sym_class_decl 9 0 637]),
     (14029, [Entry 1 True, REDUCE sym_fb_decl 11 0 1516]),
     (14031, [Entry 1 False, REDUCE sym_fb_decl 11 0 1516]),
     (14033, [Entry 1 True, REDUCE sym_fb_decl 11 0 1953]),
     (14035, [Entry 1 False, REDUCE sym_fb_decl 11 0 1953]),
     (14037, [Entry 1 True, REDUCE sym_fb_decl 11 0 1954]),
     (14039, [Entry 1 False, REDUCE sym_fb_decl 11 0 1954]),
     (14041, [Entry 1 True, REDUCE sym_fb_decl 11 0 1955]),
     (14043, [Entry 1 False, REDUCE sym_fb_decl 11 0 1955]),
     (14045, [Entry 1 True, REDUCE sym_fb_decl 11 0 1521]),
     (14047, [Entry 1 False, REDUCE sym_fb_decl 11 0 1521]),
     (14049, [Entry 1 True, REDUCE sym_fb_decl 11 0 1956]),
     (14051, [Entry 1 False, REDUCE sym_fb_decl 11 0 1956]),
     (14053, [Entry 1 True, REDUCE sym_fb_decl 11 0 1957]),
     (14055, [Entry 1 False, REDUCE sym_fb_decl 11 0 1957]),
     (14057, [Entry 1 True, REDUCE sym_fb_decl 11 0 1523]),
     (14059, [Entry 1 False, REDUCE sym_fb_decl 11 0 1523]),
     (14061, [Entry 1 True, REDUCE sym_fb_decl 11 0 1958]),
     (14063, [Entry 1 False, REDUCE sym_fb_decl 11 0 1958]),
     (14065, [Entry 1 True, REDUCE sym_fb_decl 11 0 1959]),
     (14067, [Entry 1 False, REDUCE sym_fb_decl 11 0 1959]),
     (14069, [Entry 1 True, REDUCE sym_fb_decl 8 0 561]),
     (14071, [Entry 1 False, REDUCE sym_fb_decl 8 0 561]),
     (14073, [Entry 1 True, REDUCE sym_fb_decl 11 0 1524]),
     (14075, [Entry 1 False, REDUCE sym_fb_decl 11 0 1524]),
     (14077, [Entry 1 True, REDUCE sym_fb_decl 11 0 1960]),
     (14079, [Entry 1 False, REDUCE sym_fb_decl 11 0 1960]),
     (14081, [Entry 1 True, REDUCE sym_fb_decl 11 0 1961]),
     (14083, [Entry 1 False, REDUCE sym_fb_decl 11 0 1961]),
     (14085, [Entry 1 True, REDUCE sym_fb_decl 11 0 1525]),
     (14087, [Entry 1 False, REDUCE sym_fb_decl 11 0 1525]),
     (14089, [Entry 1 True, REDUCE sym_fb_decl 11 0 1962]),
     (14091, [Entry 1 False, REDUCE sym_fb_decl 11 0 1962]),
     (14093, [Entry 1 True, REDUCE sym_fb_decl 11 0 1963]),
     (14095, [Entry 1 False, REDUCE sym_fb_decl 11 0 1963]),
     (14097, [Entry 1 True, REDUCE sym_class_decl 9 0 555]),
     (14099, [Entry 1 False, REDUCE sym_class_decl 9 0 555]),
     (14101, [Entry 1 True, REDUCE sym_fb_decl 11 0 1526]),
     (14103, [Entry 1 False, REDUCE sym_fb_decl 11 0 1526]),
     (14105, [Entry 1 True, REDUCE sym_fb_decl 11 0 1964]),
     (14107, [Entry 1 False, REDUCE sym_fb_decl 11 0 1964]),
     (14109, [Entry 1 True, REDUCE sym_fb_decl 11 0 1965]),
     (14111, [Entry 1 False, REDUCE sym_fb_decl 11 0 1965]),
     (14113, [Entry 1 True, REDUCE sym_fb_decl 8 0 74]),
     (14115, [Entry 1 False, REDUCE sym_fb_decl 8 0 74]),
     (14117, [Entry 1 True, REDUCE sym_fb_decl 8 0 562]),
     (14119, [Entry 1 False, REDUCE sym_fb_decl 8 0 562]),
     (14121, [Entry 1 True, REDUCE sym_fb_decl 11 0 1966]),
     (14123, [Entry 1 False, REDUCE sym_fb_decl 11 0 1966]),
     (14125, [Entry 1 True, REDUCE sym_class_decl 5 0 74]),
     (14127, [Entry 1 False, REDUCE sym_class_decl 5 0 74]),
     (14129, [Entry 1 True, REDUCE sym_fb_decl 11 0 1527]),
     (14131, [Entry 1 False, REDUCE sym_fb_decl 11 0 1527]),
     (14133, [Entry 1 True, REDUCE sym_fb_decl 11 0 1967]),
     (14135, [Entry 1 False, REDUCE sym_fb_decl 11 0 1967]),
     (14137, [Entry 1 True, REDUCE sym_fb_decl 11 0 1968]),
     (14139, [Entry 1 False, REDUCE sym_fb_decl 11 0 1968]),
     (14141, [Entry 1 True, REDUCE sym_fb_decl 11 0 1529]),
     (14143, [Entry 1 False, REDUCE sym_fb_decl 11 0 1529]),
     (14145, [Entry 1 True, REDUCE sym_fb_decl 11 0 1969]),
     (14147, [Entry 1 False, REDUCE sym_fb_decl 11 0 1969]),
     (14149, [Entry 1 True, REDUCE sym_fb_decl 11 0 1970]),
     (14151, [Entry 1 False, REDUCE sym_fb_decl 11 0 1970]),
     (14153, [Entry 1 True, REDUCE sym_class_decl 9 0 906]),
     (14155, [Entry 1 False, REDUCE sym_class_decl 9 0 906]),
     (14157, [Entry 1 True, REDUCE sym_fb_decl 8 0 563]),
     (14159, [Entry 1 False, REDUCE sym_fb_decl 8 0 563]),
     (14161, [Entry 1 True, REDUCE sym_fb_decl 11 0 1971]),
     (14163, [Entry 1 False, REDUCE sym_fb_decl 11 0 1971]),
     (14165, [Entry 1 True, REDUCE sym_fb_decl 9 0 885]),
     (14167, [Entry 1 False, REDUCE sym_fb_decl 9 0 885]),
     (14169, [Entry 1 True, REDUCE sym_fb_decl 6 0 221]),
     (14171, [Entry 1 False, REDUCE sym_fb_decl 6 0 221]),
     (14173, [Entry 1 True, REDUCE sym_fb_decl 6 0 222]),
     (14175, [Entry 1 False, REDUCE sym_fb_decl 6 0 222]),
     (14177, [Entry 1 True, REDUCE sym_fb_decl 8 0 564]),
     (14179, [Entry 1 False, REDUCE sym_fb_decl 8 0 564]),
     (14181, [Entry 1 True, REDUCE sym_fb_decl 7 0 176]),
     (14183, [Entry 1 False, REDUCE sym_fb_decl 7 0 176]),
     (14185, [Entry 1 True, REDUCE sym_fb_decl 8 0 320]),
     (14187, [Entry 1 False, REDUCE sym_fb_decl 8 0 320]),
     (14189, [Entry 1 True, REDUCE sym_fb_decl 8 0 565]),
     (14191, [Entry 1 False, REDUCE sym_fb_decl 8 0 565]),
     (14193, [Entry 1 True, REDUCE sym_fb_decl 11 0 1972]),
     (14195, [Entry 1 False, REDUCE sym_fb_decl 11 0 1972]),
     (14197, [Entry 1 True, REDUCE sym_fb_decl 8 0 566]),
     (14199, [Entry 1 False, REDUCE sym_fb_decl 8 0 566]),
     (14201, [Entry 1 True, REDUCE sym_fb_decl 11 0 1973]),
     (14203, [Entry 1 False, REDUCE sym_fb_decl 11 0 1973]),
     (14205, [Entry 1 True, REDUCE sym_fb_decl 11 0 1532]),
     (14207, [Entry 1 False, REDUCE sym_fb_decl 11 0 1532]),
     (14209, [Entry 1 True, REDUCE sym_fb_decl 11 0 1974]),
     (14211, [Entry 1 False, REDUCE sym_fb_decl 11 0 1974]),
     (14213, [Entry 1 True, REDUCE sym_fb_decl 11 0 1975]),
     (14215, [Entry 1 False, REDUCE sym_fb_decl 11 0 1975]),
     (14217, [Entry 1 True, REDUCE sym_fb_decl 11 0 1534]),
     (14219, [Entry 1 False, REDUCE sym_fb_decl 11 0 1534]),
     (14221, [Entry 1 True, REDUCE sym_fb_decl 11 0 1976]),
     (14223, [Entry 1 False, REDUCE sym_fb_decl 11 0 1976]),
     (14225, [Entry 1 True, REDUCE sym_fb_decl 11 0 1977]),
     (14227, [Entry 1 False, REDUCE sym_fb_decl 11 0 1977]),
     (14229, [Entry 1 True, REDUCE sym_fb_decl 7 0 326]),
     (14231, [Entry 1 False, REDUCE sym_fb_decl 7 0 326]),
     (14233, [Entry 1 True, REDUCE sym_fb_decl 11 0 1535]),
     (14235, [Entry 1 False, REDUCE sym_fb_decl 11 0 1535]),
     (14237, [Entry 1 True, REDUCE sym_fb_decl 11 0 1978]),
     (14239, [Entry 1 False, REDUCE sym_fb_decl 11 0 1978]),
     (14241, [Entry 1 True, REDUCE sym_fb_decl 11 0 1979]),
     (14243, [Entry 1 False, REDUCE sym_fb_decl 11 0 1979]),
     (14245, [Entry 1 True, REDUCE sym_class_decl 9 0 1017]),
     (14247, [Entry 1 False, REDUCE sym_class_decl 9 0 1017]),
     (14249, [Entry 1 True, REDUCE sym_fb_decl 8 0 568]),
     (14251, [Entry 1 False, REDUCE sym_fb_decl 8 0 568]),
     (14253, [Entry 1 True, REDUCE sym_fb_decl 8 0 323]),
     (14255, [Entry 1 False, REDUCE sym_fb_decl 8 0 323]),
     (14257, [Entry 1 True, REDUCE sym_fb_decl 8 0 569]),
     (14259, [Entry 1 False, REDUCE sym_fb_decl 8 0 569]),
     (14261, [Entry 1 True, REDUCE sym_fb_decl 8 0 570]),
     (14263, [Entry 1 False, REDUCE sym_fb_decl 8 0 570]),
     (14265, [Entry 1 True, REDUCE sym_fb_decl 11 0 1980]),
     (14267, [Entry 1 False, REDUCE sym_fb_decl 11 0 1980]),
     (14269, [Entry 1 True, REDUCE sym_fb_decl 11 0 1536]),
     (14271, [Entry 1 False, REDUCE sym_fb_decl 11 0 1536]),
     (14273, [Entry 1 True, REDUCE sym_fb_decl 11 0 1981]),
     (14275, [Entry 1 False, REDUCE sym_fb_decl 11 0 1981]),
     (14277, [Entry 1 True, REDUCE sym_fb_decl 11 0 1982]),
     (14279, [Entry 1 False, REDUCE sym_fb_decl 11 0 1982]),
     (14281, [Entry 1 True, REDUCE sym_class_decl 9 0 638]),
     (14283, [Entry 1 False, REDUCE sym_class_decl 9 0 638]),
     (14285, [Entry 1 True, REDUCE sym_fb_decl 11 0 1537]),
     (14287, [Entry 1 False, REDUCE sym_fb_decl 11 0 1537]),
     (14289, [Entry 1 True, REDUCE sym_fb_decl 11 0 1983]),
     (14291, [Entry 1 False, REDUCE sym_fb_decl 11 0 1983]),
     (14293, [Entry 1 True, REDUCE sym_fb_decl 11 0 1984]),
     (14295, [Entry 1 False, REDUCE sym_fb_decl 11 0 1984]),
     (14297, [Entry 1 True, REDUCE sym_fb_decl 8 0 324]),
     (14299, [Entry 1 False, REDUCE sym_fb_decl 8 0 324]),
     (14301, [Entry 1 True, REDUCE sym_fb_decl 8 0 571]),
     (14303, [Entry 1 False, REDUCE sym_fb_decl 8 0 571]),
     (14305, [Entry 1 True, REDUCE sym_fb_decl 11 0 1985]),
     (14307, [Entry 1 False, REDUCE sym_fb_decl 11 0 1985]),
     (14309, [Entry 1 True, REDUCE sym_fb_decl 8 0 572]),
     (14311, [Entry 1 False, REDUCE sym_fb_decl 8 0 572]),
     (14313, [Entry 1 True, REDUCE sym_fb_decl 11 0 686]),
     (14315, [Entry 1 False, REDUCE sym_fb_decl 11 0 686]),
     (14317, [Entry 1 True, REDUCE sym_fb_decl 11 0 1986])]"

lemma ts_parse_actions_47_tiled: "tiled_from 14019 ts_parse_actions_47 \<and> after_runs 14019 ts_parse_actions_47 = 14319"
  unfolding ts_parse_actions_47_def by (simp cong: runs_weak)

lemma ts_parse_actions_47_ok: "list_all (\<lambda>(i, es). group_ok es) ts_parse_actions_47"
  unfolding ts_parse_actions_47_def
  by (simp add: group_ok_simps entry_action_ok_simps del: One_nat_def group_ok.simps cong: list_all_weak)

text \<open>Lines 487771 to 487920.\<close>

definition ts_parse_actions_48 :: "(nat \<times> TSParseActionEntry list) list" where
  "ts_parse_actions_48 =
    [(14319, [Entry 1 False, REDUCE sym_fb_decl 11 0 1986]),
     (14321, [Entry 1 True, REDUCE sym_fb_decl 6 0 223]),
     (14323, [Entry 1 False, REDUCE sym_fb_decl 6 0 223]),
     (14325, [Entry 1 True, REDUCE sym_class_decl 9 0 562]),
     (14327, [Entry 1 False, REDUCE sym_class_decl 9 0 562]),
     (14329, [Entry 1 True, REDUCE sym_fb_decl 11 0 1987]),
     (14331, [Entry 1 False, REDUCE sym_fb_decl 11 0 1987]),
     (14333, [Entry 1 True, REDUCE sym_fb_decl 8 0 573]),
     (14335, [Entry 1 False, REDUCE sym_fb_decl 8 0 573]),
     (14337, [Entry 1 True, REDUCE sym_class_decl 9 0 1018]),
     (14339, [Entry 1 False, REDUCE sym_class_decl 9 0 1018]),
     (14341, [Entry 1 True, REDUCE sym_fb_decl 8 0 175]),
     (14343, [Entry 1 False, REDUCE sym_fb_decl 8 0 175]),
     (14345, [Entry 1 True, REDUCE sym_fb_decl 11 0 1988]),
     (14347, [Entry 1 False, REDUCE sym_fb_decl 11 0 1988]),
     (14349, [Entry 1 True, REDUCE sym_fb_decl 8 0 574]),
     (14351, [Entry 1 False, REDUCE sym_fb_decl 8 0 574]),
     (14353, [Entry 1 True, REDUCE sym_fb_decl 11 0 1538]),
     (14355, [Entry 1 False, REDUCE sym_fb_decl 11 0 1538]),
     (14357, [Entry 1 True, REDUCE sym_fb_decl 11 0 1989]),
     (14359, [Entry 1 False, REDUCE sym_fb_decl 11 0 1989]),
     (14361, [Entry 1 True, REDUCE sym_fb_decl 11 0 1990]),
     (14363, [Entry 1 False, REDUCE sym_fb_decl 11 0 1990]),
     (14365, [Entry 1 True, REDUCE sym_fb_decl 11 0 1991]),
     (14367, [Entry 1 False, REDUCE sym_fb_decl 11 0 1991]),
     (14369, [Entry 1 True, REDUCE sym_fb_decl 11 0 1992]),
     (14371, [Entry 1 False, REDUCE sym_fb_decl 11 0 1992]),
     (14373, [Entry 1 True, REDUCE sym_fb_decl 11 0 1545]),
     (14375, [Entry 1 False, REDUCE sym_fb_decl 11 0 1545]),
     (14377, [Entry 1 True, REDUCE sym_fb_decl 11 0 1993]),
     (14379, [Entry 1 False, REDUCE sym_fb_decl 11 0 1993]),
     (14381, [Entry 1 True, REDUCE sym_fb_decl 11 0 1994]),
     (14383, [Entry 1 False, REDUCE sym_fb_decl 11 0 1994]),
     (14385, [Entry 1 True, REDUCE sym_class_decl 5 0 5]),
     (14387, [Entry 1 False, REDUCE sym_class_decl 5 0 5]),
     (14389, [Entry 1 True, REDUCE sym_fb_decl 11 0 1546]),
     (14391, [Entry 1 False, REDUCE sym_fb_decl 11 0 1546]),
     (14393, [Entry 1 True, REDUCE sym_fb_decl 11 0 1995]),
     (14395, [Entry 1 False, REDUCE sym_fb_decl 11 0 1995]),
     (14397, [Entry 1 True, REDUCE sym_fb_decl 11 0 1996]),
     (14399, [Entry 1 False, REDUCE sym_fb_decl 11 0 1996]),
     (14401, [Entry 1 True, REDUCE sym_fb_decl 6 0 224]),
     (14403, [Entry 1 False, REDUCE sym_fb_decl 6 0 224]),
     (14405, [Entry 1 True, REDUCE sym_fb_decl 8 0 575]),
     (14407, [Entry 1 False, REDUCE sym_fb_decl 8 0 575]),
     (14409, [Entry 1 True, REDUCE sym_fb_decl 11 0 1997]),
     (14411, [Entry 1 False, REDUCE sym_fb_decl 11 0 1997]),
     (14413, [Entry 1 True, REDUCE sym_class_decl 5 0 76]),
     (14415, [Entry 1 False, REDUCE sym_class_decl 5 0 76]),
     (14417, [Entry 1 True, REDUCE sym_fb_decl 11 0 1089]),
     (14419, [Entry 1 False, REDUCE sym_fb_decl 11 0 1089]),
     (14421, [Entry 1 True, REDUCE sym_fb_decl 11 0 1998]),
     (14423, [Entry 1 False, REDUCE sym_fb_decl 11 0 1998]),
     (14425, [Entry 1 True, REDUCE sym_fb_decl 6 0 225]),
     (14427, [Entry 1 False, REDUCE sym_fb_decl 6 0 225]),
     (14429, [Entry 1 True, REDUCE sym_class_decl 9 0 639]),
     (14431, [Entry 1 False, REDUCE sym_class_decl 9 0 639]),
     (14433, [Entry 1 True, REDUCE sym_fb_decl 11 0 1999]),
     (14435, [Entry 1 False, REDUCE sym_fb_decl 11 0 1999]),
     (14437, [Entry 1 True, REDUCE sym_fb_decl 8 0 576]),
     (14439, [Entry 1 False, REDUCE sym_fb_decl 8 0 576]),
     (14441, [Entry 1 True, REDUCE sym_class_decl 9 0 640]),
     (14443, [Entry 1 False, REDUCE sym_class_decl 9 0 640]),
     (14445, [Entry 1 True, REDUCE sym_fb_decl 8 0 325]),
     (14447, [Entry 1 False, REDUCE sym_fb_decl 8 0 325]),
     (14449, [Entry 1 True, REDUCE sym_fb_decl 11 0 2000]),
     (14451, [Entry 1 False, REDUCE sym_fb_decl 11 0 2000]),
     (14453, [Entry 1 True, REDUCE sym_fb_decl 8 0 577]),
     (14455, [Entry 1 False, REDUCE sym_fb_decl 8 0 577]),
     (14457, [Entry 1 True, REDUCE sym_fb_decl 11 0 1547]),
     (14459, [Entry 1 False, REDUCE sym_fb_decl 11 0 1547]),
     (14461, [Entry 1 True, REDUCE sym_fb_decl 11 0 2001]),
     (14463, [Entry 1 False, REDUCE sym_fb_decl 11 0 2001]),
     (14465, [Entry 1 True, REDUCE sym_fb_decl 11 0 2002]),
     (14467, [Entry 1 False, REDUCE sym_fb_decl 11 0 2002]),
     (14469, [Entry 1 True, REDUCE sym_fb_decl 11 0 2003]),
     (14471, [Entry 1 False, REDUCE sym_fb_decl 11 0 2003]),
     (14473, [Entry 1 True, REDUCE sym_fb_decl 11 0 1552]),
     (14475, [Entry 1 False, REDUCE sym_fb_decl 11 0 1552]),
     (14477, [Entry 1 True, REDUCE sym_fb_decl 11 0 2004]),
     (14479, [Entry 1 False, REDUCE sym_fb_decl 11 0 2004]),
     (14481, [Entry 1 True, REDUCE sym_fb_decl 11 0 2005]),
     (14483, [Entry 1 False, REDUCE sym_fb_decl 11 0 2005]),
     (14485, [Entry 1 True, REDUCE sym_fb_decl 11 0 2006]),
     (14487, [Entry 1 False, REDUCE sym_fb_decl 11 0 2006]),
     (14489, [Entry 1 True, REDUCE sym_fb_decl 11 0 1556]),
     (14491, [Entry 1 False, REDUCE sym_fb_decl 11 0 1556]),
     (14493, [Entry 1 True, REDUCE sym_fb_decl 11 0 2007]),
     (14495, [Entry 1 False, REDUCE sym_fb_decl 11 0 2007]),
     (14497, [Entry 1 True, REDUCE sym_fb_decl 11 0 2008]),
     (14499, [Entry 1 False, REDUCE sym_fb_decl 11 0 2008]),
     (14501, [Entry 1 True, REDUCE sym_fb_decl 11 0 1558]),
     (14503, [Entry 1 False, REDUCE sym_fb_decl 11 0 1558]),
     (14505, [Entry 1 True, REDUCE sym_fb_decl 11 0 2009]),
     (14507, [Entry 1 False, REDUCE sym_fb_decl 11 0 2009]),
     (14509, [Entry 1 True, REDUCE sym_fb_decl 11 0 2010]),
     (14511, [Entry 1 False, REDUCE sym_fb_decl 11 0 2010]),
     (14513, [Entry 1 True, REDUCE sym_fb_decl 8 0 578]),
     (14515, [Entry 1 False, REDUCE sym_fb_decl 8 0 578]),
     (14517, [Entry 1 True, REDUCE sym_fb_decl 11 0 1559]),
     (14519, [Entry 1 False, REDUCE sym_fb_decl 11 0 1559]),
     (14521, [Entry 1 True, REDUCE sym_fb_decl 11 0 2011]),
     (14523, [Entry 1 False, REDUCE sym_fb_decl 11 0 2011]),
     (14525, [Entry 1 True, REDUCE sym_fb_decl 11 0 2012]),
     (14527, [Entry 1 False, REDUCE sym_fb_decl 11 0 2012]),
     (14529, [Entry 1 True, REDUCE sym_fb_decl 11 0 2013]),
     (14531, [Entry 1 False, REDUCE sym_fb_decl 11 0 2013]),
     (14533, [Entry 1 True, REDUCE sym_fb_decl 11 0 2014]),
     (14535, [Entry 1 False, REDUCE sym_fb_decl 11 0 2014]),
     (14537, [Entry 1 True, REDUCE sym_fb_decl 11 0 2015]),
     (14539, [Entry 1 False, REDUCE sym_fb_decl 11 0 2015]),
     (14541, [Entry 1 True, REDUCE sym_fb_decl 11 0 1571]),
     (14543, [Entry 1 False, REDUCE sym_fb_decl 11 0 1571]),
     (14545, [Entry 1 True, REDUCE sym_fb_decl 11 0 2016]),
     (14547, [Entry 1 False, REDUCE sym_fb_decl 11 0 2016]),
     (14549, [Entry 1 True, REDUCE sym_fb_decl 11 0 2017]),
     (14551, [Entry 1 False, REDUCE sym_fb_decl 11 0 2017]),
     (14553, [Entry 1 True, REDUCE sym_fb_decl 11 0 2018]),
     (14555, [Entry 1 False, REDUCE sym_fb_decl 11 0 2018]),
     (14557, [Entry 1 True, REDUCE sym_fb_decl 11 0 1576]),
     (14559, [Entry 1 False, REDUCE sym_fb_decl 11 0 1576]),
     (14561, [Entry 1 True, REDUCE sym_fb_decl 11 0 2019]),
     (14563, [Entry 1 False, REDUCE sym_fb_decl 11 0 2019]),
     (14565, [Entry 1 True, REDUCE sym_fb_decl 11 0 2020]),
     (14567, [Entry 1 False, REDUCE sym_fb_decl 11 0 2020]),
     (14569, [Entry 1 True, REDUCE sym_fb_decl 11 0 1578]),
     (14571, [Entry 1 False, REDUCE sym_fb_decl 11 0 1578]),
     (14573, [Entry 1 True, REDUCE sym_fb_decl 11 0 2021]),
     (14575, [Entry 1 False, REDUCE sym_fb_decl 11 0 2021]),
     (14577, [Entry 1 True, REDUCE sym_fb_decl 11 0 2022]),
     (14579, [Entry 1 False, REDUCE sym_fb_decl 11 0 2022]),
     (14581, [Entry 1 True, REDUCE sym_prog_decl 4 0 38]),
     (14583, [Entry 1 False, REDUCE sym_prog_decl 4 0 38]),
     (14585, [Entry 1 True, REDUCE sym_fb_decl 11 0 1579]),
     (14587, [Entry 1 False, REDUCE sym_fb_decl 11 0 1579]),
     (14589, [Entry 1 True, REDUCE sym_fb_decl 11 0 2023]),
     (14591, [Entry 1 False, REDUCE sym_fb_decl 11 0 2023]),
     (14593, [Entry 1 True, REDUCE sym_fb_decl 11 0 2024]),
     (14595, [Entry 1 False, REDUCE sym_fb_decl 11 0 2024]),
     (14597, [Entry 1 True, REDUCE sym_fb_decl 11 0 1580]),
     (14599, [Entry 1 False, REDUCE sym_fb_decl 11 0 1580]),
     (14601, [Entry 1 True, REDUCE sym_fb_decl 11 0 2025]),
     (14603, [Entry 1 False, REDUCE sym_fb_decl 11 0 2025]),
     (14605, [Entry 1 True, REDUCE sym_fb_decl 11 0 2026]),
     (14607, [Entry 1 False, REDUCE sym_fb_decl 11 0 2026]),
     (14609, [Entry 1 True, REDUCE sym_class_decl 9 0 574]),
     (14611, [Entry 1 False, REDUCE sym_class_decl 9 0 574]),
     (14613, [Entry 1 True, REDUCE sym_fb_decl 11 0 1581]),
     (14615, [Entry 1 False, REDUCE sym_fb_decl 11 0 1581]),
     (14617, [Entry 1 True, REDUCE sym_fb_decl 11 0 2027])]"

lemma ts_parse_actions_48_tiled: "tiled_from 14319 ts_parse_actions_48 \<and> after_runs 14319 ts_parse_actions_48 = 14619"
  unfolding ts_parse_actions_48_def by (simp cong: runs_weak)

lemma ts_parse_actions_48_ok: "list_all (\<lambda>(i, es). group_ok es) ts_parse_actions_48"
  unfolding ts_parse_actions_48_def
  by (simp add: group_ok_simps entry_action_ok_simps del: One_nat_def group_ok.simps cong: list_all_weak)

text \<open>Lines 487921 to 488070.\<close>

definition ts_parse_actions_49 :: "(nat \<times> TSParseActionEntry list) list" where
  "ts_parse_actions_49 =
    [(14619, [Entry 1 False, REDUCE sym_fb_decl 11 0 2027]),
     (14621, [Entry 1 True, REDUCE sym_fb_decl 11 0 2028]),
     (14623, [Entry 1 False, REDUCE sym_fb_decl 11 0 2028]),
     (14625, [Entry 1 True, REDUCE sym_class_decl 5 0 85]),
     (14627, [Entry 1 False, REDUCE sym_class_decl 5 0 85]),
     (14629, [Entry 1 True, REDUCE sym_fb_decl 6 0 226]),
     (14631, [Entry 1 False, REDUCE sym_fb_decl 6 0 226]),
     (14633, [Entry 1 True, REDUCE sym_fb_decl 11 0 2029]),
     (14635, [Entry 1 False, REDUCE sym_fb_decl 11 0 2029]),
     (14637, [Entry 1 True, REDUCE sym_class_decl 5 0 26]),
     (14639, [Entry 1 False, REDUCE sym_class_decl 5 0 26]),
     (14641, [Entry 1 True, REDUCE sym_fb_decl 11 0 1582]),
     (14643, [Entry 1 False, REDUCE sym_fb_decl 11 0 1582]),
     (14645, [Entry 1 True, REDUCE sym_fb_decl 11 0 2030]),
     (14647, [Entry 1 False, REDUCE sym_fb_decl 11 0 2030]),
     (14649, [Entry 1 True, REDUCE sym_fb_decl 11 0 2031]),
     (14651, [Entry 1 False, REDUCE sym_fb_decl 11 0 2031]),
     (14653, [Entry 1 True, REDUCE sym_fb_decl 11 0 2032]),
     (14655, [Entry 1 False, REDUCE sym_fb_decl 11 0 2032]),
     (14657, [Entry 1 True, REDUCE sym_fb_decl 11 0 2033]),
     (14659, [Entry 1 False, REDUCE sym_fb_decl 11 0 2033]),
     (14661, [Entry 1 True, REDUCE sym_fb_decl 11 0 1589]),
     (14663, [Entry 1 False, REDUCE sym_fb_decl 11 0 1589]),
     (14665, [Entry 1 True, REDUCE sym_fb_decl 11 0 2034]),
     (14667, [Entry 1 False, REDUCE sym_fb_decl 11 0 2034]),
     (14669, [Entry 1 True, REDUCE sym_fb_decl 11 0 2035]),
     (14671, [Entry 1 False, REDUCE sym_fb_decl 11 0 2035]),
     (14673, [Entry 1 True, REDUCE sym_fb_decl 8 0 579]),
     (14675, [Entry 1 False, REDUCE sym_fb_decl 8 0 579]),
     (14677, [Entry 1 True, REDUCE sym_fb_decl 11 0 1590]),
     (14679, [Entry 1 False, REDUCE sym_fb_decl 11 0 1590]),
     (14681, [Entry 1 True, REDUCE sym_fb_decl 11 0 2036]),
     (14683, [Entry 1 False, REDUCE sym_fb_decl 11 0 2036]),
     (14685, [Entry 1 True, REDUCE sym_fb_decl 11 0 2037]),
     (14687, [Entry 1 False, REDUCE sym_fb_decl 11 0 2037]),
     (14689, [Entry 1 True, REDUCE sym_fb_decl 8 0 327]),
     (14691, [Entry 1 False, REDUCE sym_fb_decl 8 0 327]),
     (14693, [Entry 1 True, REDUCE sym_fb_decl 8 0 580]),
     (14695, [Entry 1 False, REDUCE sym_fb_decl 8 0 580]),
     (14697, [Entry 1 True, REDUCE sym_fb_decl 11 0 2038]),
     (14699, [Entry 1 False, REDUCE sym_fb_decl 11 0 2038]),
     (14701, [Entry 1 True, REDUCE sym_fb_decl 8 0 581]),
     (14703, [Entry 1 False, REDUCE sym_fb_decl 8 0 581]),
     (14705, [Entry 1 True, REDUCE sym_fb_decl 11 0 1129]),
     (14707, [Entry 1 False, REDUCE sym_fb_decl 11 0 1129]),
     (14709, [Entry 1 True, REDUCE sym_fb_decl 11 0 2039]),
     (14711, [Entry 1 False, REDUCE sym_fb_decl 11 0 2039]),
     (14713, [Entry 1 True, REDUCE sym_class_decl 9 0 1019]),
     (14715, [Entry 1 False, REDUCE sym_class_decl 9 0 1019]),
     (14717, [Entry 1 True, REDUCE sym_fb_decl 8 0 328]),
     (14719, [Entry 1 False, REDUCE sym_fb_decl 8 0 328]),
     (14721, [Entry 1 True, REDUCE sym_fb_decl 11 0 2040]),
     (14723, [Entry 1 False, REDUCE sym_fb_decl 11 0 2040]),
     (14725, [Entry 1 True, REDUCE sym_fb_decl 8 0 582]),
     (14727, [Entry 1 False, REDUCE sym_fb_decl 8 0 582]),
     (14729, [Entry 1 True, REDUCE sym_fb_decl 8 0 583]),
     (14731, [Entry 1 False, REDUCE sym_fb_decl 8 0 583]),
     (14733, [Entry 1 True, REDUCE sym_class_decl 5 0 86]),
     (14735, [Entry 1 False, REDUCE sym_class_decl 5 0 86]),
     (14737, [Entry 1 True, REDUCE sym_fb_decl 11 0 2041]),
     (14739, [Entry 1 False, REDUCE sym_fb_decl 11 0 2041]),
     (14741, [Entry 1 True, REDUCE sym_class_decl 9 0 641]),
     (14743, [Entry 1 False, REDUCE sym_class_decl 9 0 641]),
     (14745, [Entry 1 True, REDUCE sym_fb_decl 11 0 1591]),
     (14747, [Entry 1 False, REDUCE sym_fb_decl 11 0 1591]),
     (14749, [Entry 1 True, REDUCE sym_fb_decl 11 0 2042]),
     (14751, [Entry 1 False, REDUCE sym_fb_decl 11 0 2042]),
     (14753, [Entry 1 True, REDUCE sym_fb_decl 11 0 2043]),
     (14755, [Entry 1 False, REDUCE sym_fb_decl 11 0 2043]),
     (14757, [Entry 1 True, REDUCE sym_fb_decl 11 0 2044]),
     (14759, [Entry 1 False, REDUCE sym_fb_decl 11 0 2044]),
     (14761, [Entry 1 True, REDUCE sym_fb_decl 11 0 1596]),
     (14763, [Entry 1 False, REDUCE sym_fb_decl 11 0 1596]),
     (14765, [Entry 1 True, REDUCE sym_fb_decl 11 0 2045]),
     (14767, [Entry 1 False, REDUCE sym_fb_decl 11 0 2045]),
     (14769, [Entry 1 True, REDUCE sym_fb_decl 11 0 2046]),
     (14771, [Entry 1 False, REDUCE sym_fb_decl 11 0 2046]),
     (14773, [Entry 1 True, REDUCE sym_fb_decl 11 0 2047]),
     (14775, [Entry 1 False, REDUCE sym_fb_decl 11 0 2047]),
     (14777, [Entry 1 True, REDUCE sym_fb_decl 11 0 1600]),
     (14779, [Entry 1 False, REDUCE sym_fb_decl 11 0 1600]),
     (14781, [Entry 1 True, REDUCE sym_fb_decl 11 0 2048]),
     (14783, [Entry 1 False, REDUCE sym_fb_decl 11 0 2048]),
     (14785, [Entry 1 True, REDUCE sym_fb_decl 11 0 2049]),
     (14787, [Entry 1 False, REDUCE sym_fb_decl 11 0 2049]),
     (14789, [Entry 1 True, REDUCE sym_fb_decl 11 0 1602]),
     (14791, [Entry 1 False, REDUCE sym_fb_decl 11 0 1602]),
     (14793, [Entry 1 True, REDUCE sym_fb_decl 11 0 2050]),
     (14795, [Entry 1 False, REDUCE sym_fb_decl 11 0 2050]),
     (14797, [Entry 1 True, REDUCE sym_fb_decl 11 0 2051]),
     (14799, [Entry 1 False, REDUCE sym_fb_decl 11 0 2051]),
     (14801, [Entry 1 True, REDUCE sym_fb_decl 8 0 584]),
     (14803, [Entry 1 False, REDUCE sym_fb_decl 8 0 584]),
     (14805, [Entry 1 True, REDUCE sym_fb_decl 11 0 1603]),
     (14807, [Entry 1 False, REDUCE sym_fb_decl 11 0 1603]),
     (14809, [Entry 1 True, REDUCE sym_fb_decl 11 0 2052]),
     (14811, [Entry 1 False, REDUCE sym_fb_decl 11 0 2052]),
     (14813, [Entry 1 True, REDUCE sym_fb_decl 11 0 2053]),
     (14815, [Entry 1 False, REDUCE sym_fb_decl 11 0 2053]),
     (14817, [Entry 1 True, REDUCE sym_fb_decl 11 0 2054]),
     (14819, [Entry 1 False, REDUCE sym_fb_decl 11 0 2054]),
     (14821, [Entry 1 True, REDUCE sym_fb_decl 11 0 2055]),
     (14823, [Entry 1 False, REDUCE sym_fb_decl 11 0 2055]),
     (14825, [Entry 1 True, REDUCE sym_fb_decl 11 0 1610]),
     (14827, [Entry 1 False, REDUCE sym_fb_decl 11 0 1610]),
     (14829, [Entry 1 True, REDUCE sym_fb_decl 11 0 2056]),
     (14831, [Entry 1 False, REDUCE sym_fb_decl 11 0 2056]),
     (14833, [Entry 1 True, REDUCE sym_fb_decl 11 0 2057]),
     (14835, [Entry 1 False, REDUCE sym_fb_decl 11 0 2057]),
     (14837, [Entry 1 True, REDUCE sym_fb_decl 11 0 2058]),
     (14839, [Entry 1 False, REDUCE sym_fb_decl 11 0 2058]),
     (14841, [Entry 1 True, REDUCE sym_fb_decl 11 0 1614]),
     (14843, [Entry 1 False, REDUCE sym_fb_decl 11 0 1614]),
     (14845, [Entry 1 True, REDUCE sym_fb_decl 11 0 2059]),
     (14847, [Entry 1 False, REDUCE sym_fb_decl 11 0 2059]),
     (14849, [Entry 1 True, REDUCE sym_fb_decl 11 0 2060]),
     (14851, [Entry 1 False, REDUCE sym_fb_decl 11 0 2060]),
     (14853, [Entry 1 True, REDUCE sym_fb_decl 11 0 1616]),
     (14855, [Entry 1 False, REDUCE sym_fb_decl 11 0 1616]),
     (14857, [Entry 1 True, REDUCE sym_fb_decl 11 0 2061]),
     (14859, [Entry 1 False, REDUCE sym_fb_decl 11 0 2061]),
     (14861, [Entry 1 True, REDUCE sym_fb_decl 11 0 2062]),
     (14863, [Entry 1 False, REDUCE sym_fb_decl 11 0 2062]),
     (14865, [Entry 1 True, REDUCE sym_class_decl 9 0 578]),
     (14867, [Entry 1 False, REDUCE sym_class_decl 9 0 578]),
     (14869, [Entry 1 True, REDUCE sym_fb_decl 11 0 1617]),
     (14871, [Entry 1 False, REDUCE sym_fb_decl 11 0 1617]),
     (14873, [Entry 1 True, REDUCE sym_fb_decl 11 0 2063]),
     (14875, [Entry 1 False, REDUCE sym_fb_decl 11 0 2063]),
     (14877, [Entry 1 True, REDUCE sym_fb_decl 11 0 2064]),
     (14879, [Entry 1 False, REDUCE sym_fb_decl 11 0 2064]),
     (14881, [Entry 1 True, REDUCE sym_fb_decl 11 0 2065]),
     (14883, [Entry 1 False, REDUCE sym_fb_decl 11 0 2065]),
     (14885, [Entry 1 True, REDUCE sym_fb_decl 11 0 1621]),
     (14887, [Entry 1 False, REDUCE sym_fb_decl 11 0 1621]),
     (14889, [Entry 1 True, REDUCE sym_fb_decl 11 0 2066]),
     (14891, [Entry 1 False, REDUCE sym_fb_decl 11 0 2066]),
     (14893, [Entry 1 True, REDUCE sym_fb_decl 11 0 2067]),
     (14895, [Entry 1 False, REDUCE sym_fb_decl 11 0 2067]),
     (14897, [Entry 1 True, REDUCE sym_class_decl 5 0 25]),
     (14899, [Entry 1 False, REDUCE sym_class_decl 5 0 25]),
     (14901, [Entry 1 True, REDUCE sym_fb_decl 11 0 1622]),
     (14903, [Entry 1 False, REDUCE sym_fb_decl 11 0 1622]),
     (14905, [Entry 1 True, REDUCE sym_fb_decl 11 0 2068]),
     (14907, [Entry 1 False, REDUCE sym_fb_decl 11 0 2068]),
     (14909, [Entry 1 True, REDUCE sym_fb_decl 11 0 2069]),
     (14911, [Entry 1 False, REDUCE sym_fb_decl 11 0 2069]),
     (14913, [Entry 1 True, REDUCE sym_fb_decl 8 0 176]),
     (14915, [Entry 1 False, REDUCE sym_fb_decl 8 0 176]),
     (14917, [Entry 1 True, REDUCE sym_fb_decl 8 0 585])]"

lemma ts_parse_actions_49_tiled: "tiled_from 14619 ts_parse_actions_49 \<and> after_runs 14619 ts_parse_actions_49 = 14919"
  unfolding ts_parse_actions_49_def by (simp cong: runs_weak)

lemma ts_parse_actions_49_ok: "list_all (\<lambda>(i, es). group_ok es) ts_parse_actions_49"
  unfolding ts_parse_actions_49_def
  by (simp add: group_ok_simps entry_action_ok_simps del: One_nat_def group_ok.simps cong: list_all_weak)

text \<open>Lines 488071 to 488220.\<close>

definition ts_parse_actions_50 :: "(nat \<times> TSParseActionEntry list) list" where
  "ts_parse_actions_50 =
    [(14919, [Entry 1 False, REDUCE sym_fb_decl 8 0 585]),
     (14921, [Entry 1 True, REDUCE sym_fb_decl 11 0 2070]),
     (14923, [Entry 1 False, REDUCE sym_fb_decl 11 0 2070]),
     (14925, [Entry 1 True, REDUCE sym_class_decl 9 0 940]),
     (14927, [Entry 1 False, REDUCE sym_class_decl 9 0 940]),
     (14929, [Entry 1 True, REDUCE sym_fb_decl 11 0 1151]),
     (14931, [Entry 1 False, REDUCE sym_fb_decl 11 0 1151]),
     (14933, [Entry 1 True, REDUCE sym_fb_decl 11 0 2071]),
     (14935, [Entry 1 False, REDUCE sym_fb_decl 11 0 2071]),
     (14937, [Entry 1 True, REDUCE sym_fb_decl 9 0 908]),
     (14939, [Entry 1 False, REDUCE sym_fb_decl 9 0 908]),
     (14941, [Entry 1 True, REDUCE sym_fb_decl 8 0 586]),
     (14943, [Entry 1 False, REDUCE sym_fb_decl 8 0 586]),
     (14945, [Entry 1 True, REDUCE sym_fb_decl 11 0 2072]),
     (14947, [Entry 1 False, REDUCE sym_fb_decl 11 0 2072]),
     (14949, [Entry 1 True, REDUCE sym_fb_decl 6 0 38]),
     (14951, [Entry 1 False, REDUCE sym_fb_decl 6 0 38]),
     (14953, [Entry 1 True, REDUCE sym_fb_decl 6 0 227]),
     (14955, [Entry 1 False, REDUCE sym_fb_decl 6 0 227]),
     (14957, [Entry 1 True, REDUCE sym_fb_decl 6 0 228]),
     (14959, [Entry 1 False, REDUCE sym_fb_decl 6 0 228]),
     (14961, [Entry 1 True, REDUCE sym_fb_decl 11 0 2073]),
     (14963, [Entry 1 False, REDUCE sym_fb_decl 11 0 2073]),
     (14965, [Entry 1 True, REDUCE sym_fb_decl 7 0 327]),
     (14967, [Entry 1 False, REDUCE sym_fb_decl 7 0 327]),
     (14969, [Entry 1 True, REDUCE sym_fb_decl 11 0 1623]),
     (14971, [Entry 1 False, REDUCE sym_fb_decl 11 0 1623]),
     (14973, [Entry 1 True, REDUCE sym_fb_decl 11 0 2074]),
     (14975, [Entry 1 False, REDUCE sym_fb_decl 11 0 2074]),
     (14977, [Entry 1 True, REDUCE sym_fb_decl 11 0 2075]),
     (14979, [Entry 1 False, REDUCE sym_fb_decl 11 0 2075]),
     (14981, [Entry 1 True, REDUCE sym_fb_decl 11 0 2076]),
     (14983, [Entry 1 False, REDUCE sym_fb_decl 11 0 2076]),
     (14985, [Entry 1 True, REDUCE sym_fb_decl 11 0 1628]),
     (14987, [Entry 1 False, REDUCE sym_fb_decl 11 0 1628]),
     (14989, [Entry 1 True, REDUCE sym_fb_decl 11 0 2077]),
     (14991, [Entry 1 False, REDUCE sym_fb_decl 11 0 2077]),
     (14993, [Entry 1 True, REDUCE sym_fb_decl 11 0 2078]),
     (14995, [Entry 1 False, REDUCE sym_fb_decl 11 0 2078]),
     (14997, [Entry 1 True, REDUCE sym_fb_decl 11 0 1630]),
     (14999, [Entry 1 False, REDUCE sym_fb_decl 11 0 1630]),
     (15001, [Entry 1 True, REDUCE sym_fb_decl 11 0 2079]),
     (15003, [Entry 1 False, REDUCE sym_fb_decl 11 0 2079]),
     (15005, [Entry 1 True, REDUCE sym_fb_decl 11 0 2080]),
     (15007, [Entry 1 False, REDUCE sym_fb_decl 11 0 2080]),
     (15009, [Entry 1 True, REDUCE sym_fb_decl 9 0 909]),
     (15011, [Entry 1 False, REDUCE sym_fb_decl 9 0 909]),
     (15013, [Entry 1 True, REDUCE sym_fb_decl 6 0 229]),
     (15015, [Entry 1 False, REDUCE sym_fb_decl 6 0 229]),
     (15017, [Entry 1 True, REDUCE sym_fb_decl 11 0 2081]),
     (15019, [Entry 1 False, REDUCE sym_fb_decl 11 0 2081]),
     (15021, [Entry 1 True, REDUCE sym_class_decl 5 0 64]),
     (15023, [Entry 1 False, REDUCE sym_class_decl 5 0 64]),
     (15025, [Entry 1 True, REDUCE sym_fb_decl 8 0 587]),
     (15027, [Entry 1 False, REDUCE sym_fb_decl 8 0 587]),
     (15029, [Entry 1 True, REDUCE sym_class_decl 9 0 1020]),
     (15031, [Entry 1 False, REDUCE sym_class_decl 9 0 1020]),
     (15033, [Entry 1 True, REDUCE sym_fb_decl 8 0 329]),
     (15035, [Entry 1 False, REDUCE sym_fb_decl 8 0 329]),
     (15037, [Entry 1 True, REDUCE sym_fb_decl 8 0 588]),
     (15039, [Entry 1 False, REDUCE sym_fb_decl 8 0 588]),
     (15041, [Entry 1 True, REDUCE sym_fb_decl 8 0 589]),
     (15043, [Entry 1 False, REDUCE sym_fb_decl 8 0 589]),
     (15045, [Entry 1 True, REDUCE sym_fb_decl 8 0 590]),
     (15047, [Entry 1 False, REDUCE sym_fb_decl 8 0 590]),
     (15049, [Entry 1 True, REDUCE sym_fb_decl 11 0 2082]),
     (15051, [Entry 1 False, REDUCE sym_fb_decl 11 0 2082]),
     (15053, [Entry 1 True, REDUCE sym_fb_decl 8 0 334]),
     (15055, [Entry 1 False, REDUCE sym_fb_decl 8 0 334]),
     (15057, [Entry 1 True, REDUCE sym_fb_decl 11 0 2083]),
     (15059, [Entry 1 False, REDUCE sym_fb_decl 11 0 2083]),
     (15061, [Entry 1 True, REDUCE sym_fb_decl 11 0 1633]),
     (15063, [Entry 1 False, REDUCE sym_fb_decl 11 0 1633]),
     (15065, [Entry 1 True, REDUCE sym_fb_decl 11 0 2084]),
     (15067, [Entry 1 False, REDUCE sym_fb_decl 11 0 2084]),
     (15069, [Entry 1 True, REDUCE sym_fb_decl 11 0 2085]),
     (15071, [Entry 1 False, REDUCE sym_fb_decl 11 0 2085]),
     (15073, [Entry 1 True, REDUCE sym_fb_decl 11 0 1635]),
     (15075, [Entry 1 False, REDUCE sym_fb_decl 11 0 1635]),
     (15077, [Entry 1 True, REDUCE sym_fb_decl 11 0 2086]),
     (15079, [Entry 1 False, REDUCE sym_fb_decl 11 0 2086]),
     (15081, [Entry 1 True, REDUCE sym_fb_decl 11 0 2087]),
     (15083, [Entry 1 False, REDUCE sym_fb_decl 11 0 2087]),
     (15085, [Entry 1 True, REDUCE sym_fb_decl 8 0 591]),
     (15087, [Entry 1 False, REDUCE sym_fb_decl 8 0 591]),
     (15089, [Entry 1 True, REDUCE sym_fb_decl 11 0 1636]),
     (15091, [Entry 1 False, REDUCE sym_fb_decl 11 0 1636]),
     (15093, [Entry 1 True, REDUCE sym_fb_decl 11 0 2088]),
     (15095, [Entry 1 False, REDUCE sym_fb_decl 11 0 2088]),
     (15097, [Entry 1 True, REDUCE sym_fb_decl 11 0 2089]),
     (15099, [Entry 1 False, REDUCE sym_fb_decl 11 0 2089]),
     (15101, [Entry 1 True, REDUCE sym_fb_decl 11 0 1637]),
     (15103, [Entry 1 False, REDUCE sym_fb_decl 11 0 1637]),
     (15105, [Entry 1 True, REDUCE sym_fb_decl 11 0 2090]),
     (15107, [Entry 1 False, REDUCE sym_fb_decl 11 0 2090]),
     (15109, [Entry 1 True, REDUCE sym_fb_decl 11 0 2091]),
     (15111, [Entry 1 False, REDUCE sym_fb_decl 11 0 2091]),
     (15113, [Entry 1 True, REDUCE sym_fb_decl 8 0 592]),
     (15115, [Entry 1 False, REDUCE sym_fb_decl 8 0 592]),
     (15117, [Entry 1 True, REDUCE sym_fb_decl 11 0 1638]),
     (15119, [Entry 1 False, REDUCE sym_fb_decl 11 0 1638]),
     (15121, [Entry 1 True, REDUCE sym_fb_decl 11 0 2092]),
     (15123, [Entry 1 False, REDUCE sym_fb_decl 11 0 2092]),
     (15125, [Entry 1 True, REDUCE sym_fb_decl 11 0 2093]),
     (15127, [Entry 1 False, REDUCE sym_fb_decl 11 0 2093]),
     (15129, [Entry 1 True, REDUCE sym_fb_decl 8 0 336]),
     (15131, [Entry 1 False, REDUCE sym_fb_decl 8 0 336]),
     (15133, [Entry 1 True, REDUCE sym_fb_decl 8 0 593]),
     (15135, [Entry 1 False, REDUCE sym_fb_decl 8 0 593]),
     (15137, [Entry 1 True, REDUCE sym_fb_decl 11 0 2094]),
     (15139, [Entry 1 False, REDUCE sym_fb_decl 11 0 2094]),
     (15141, [Entry 1 True, REDUCE sym_fb_decl 8 0 594]),
     (15143, [Entry 1 False, REDUCE sym_fb_decl 8 0 594]),
     (15145, [Entry 1 True, REDUCE sym_fb_decl 11 0 1639]),
     (15147, [Entry 1 False, REDUCE sym_fb_decl 11 0 1639]),
     (15149, [Entry 1 True, REDUCE sym_fb_decl 11 0 2095]),
     (15151, [Entry 1 False, REDUCE sym_fb_decl 11 0 2095]),
     (15153, [Entry 1 True, REDUCE sym_fb_decl 11 0 2096]),
     (15155, [Entry 1 False, REDUCE sym_fb_decl 11 0 2096]),
     (15157, [Entry 1 True, REDUCE sym_class_decl 9 0 642]),
     (15159, [Entry 1 False, REDUCE sym_class_decl 9 0 642]),
     (15161, [Entry 1 True, REDUCE sym_fb_decl 11 0 1645]),
     (15163, [Entry 1 False, REDUCE sym_fb_decl 11 0 1645]),
     (15165, [Entry 1 True, REDUCE sym_fb_decl 11 0 2098]),
     (15167, [Entry 1 False, REDUCE sym_fb_decl 11 0 2098]),
     (15169, [Entry 1 True, REDUCE sym_fb_decl 11 0 2099]),
     (15171, [Entry 1 False, REDUCE sym_fb_decl 11 0 2099]),
     (15173, [Entry 1 True, REDUCE sym_fb_decl 11 0 1647]),
     (15175, [Entry 1 False, REDUCE sym_fb_decl 11 0 1647]),
     (15177, [Entry 1 True, REDUCE sym_fb_decl 11 0 2100]),
     (15179, [Entry 1 False, REDUCE sym_fb_decl 11 0 2100]),
     (15181, [Entry 1 True, REDUCE sym_fb_decl 11 0 2101]),
     (15183, [Entry 1 False, REDUCE sym_fb_decl 11 0 2101]),
     (15185, [Entry 1 True, REDUCE sym_class_decl 5 0 87]),
     (15187, [Entry 1 False, REDUCE sym_class_decl 5 0 87]),
     (15189, [Entry 1 True, REDUCE sym_fb_decl 11 0 1648]),
     (15191, [Entry 1 False, REDUCE sym_fb_decl 11 0 1648]),
     (15193, [Entry 1 True, REDUCE sym_fb_decl 11 0 2102]),
     (15195, [Entry 1 False, REDUCE sym_fb_decl 11 0 2102]),
     (15197, [Entry 1 True, REDUCE sym_fb_decl 11 0 2103]),
     (15199, [Entry 1 False, REDUCE sym_fb_decl 11 0 2103]),
     (15201, [Entry 1 True, REDUCE sym_fb_decl 11 0 1649]),
     (15203, [Entry 1 False, REDUCE sym_fb_decl 11 0 1649]),
     (15205, [Entry 1 True, REDUCE sym_fb_decl 11 0 2104]),
     (15207, [Entry 1 False, REDUCE sym_fb_decl 11 0 2104]),
     (15209, [Entry 1 True, REDUCE sym_fb_decl 11 0 2105]),
     (15211, [Entry 1 False, REDUCE sym_fb_decl 11 0 2105]),
     (15213, [Entry 1 True, REDUCE sym_class_decl 5 0 31]),
     (15215, [Entry 1 False, REDUCE sym_class_decl 5 0 31]),
     (15217, [Entry 1 True, REDUCE sym_fb_decl 11 0 1650])]"

lemma ts_parse_actions_50_tiled: "tiled_from 14919 ts_parse_actions_50 \<and> after_runs 14919 ts_parse_actions_50 = 15219"
  unfolding ts_parse_actions_50_def by (simp cong: runs_weak)

lemma ts_parse_actions_50_ok: "list_all (\<lambda>(i, es). group_ok es) ts_parse_actions_50"
  unfolding ts_parse_actions_50_def
  by (simp add: group_ok_simps entry_action_ok_simps del: One_nat_def group_ok.simps cong: list_all_weak)

end
