(* ===== verification/Action_Table_3.thy ===== *)
theory Action_Table_3
  imports Reduce_Counts
begin

text \<open>
  The groups of \<open>ts_parse_actions\<close> in \<open>src/crates/tree-sitter/src/parser.c\<close> from index 15219 to 22717, each
  with the check that it is one.
\<close>

text \<open>Lines 488221 to 488370.\<close>

definition ts_parse_actions_51 :: "(nat \<times> TSParseActionEntry list) list" where
  "ts_parse_actions_51 =
    [(15219, [Entry 1 False, REDUCE sym_fb_decl 11 0 1650]),
     (15221, [Entry 1 True, REDUCE sym_fb_decl 11 0 2106]),
     (15223, [Entry 1 False, REDUCE sym_fb_decl 11 0 2106]),
     (15225, [Entry 1 True, REDUCE sym_fb_decl 11 0 2107]),
     (15227, [Entry 1 False, REDUCE sym_fb_decl 11 0 2107]),
     (15229, [Entry 1 True, REDUCE sym_fb_decl 8 0 595]),
     (15231, [Entry 1 False, REDUCE sym_fb_decl 8 0 595]),
     (15233, [Entry 1 True, REDUCE sym_interface_decl 5 0 74]),
     (15235, [Entry 1 False, REDUCE sym_interface_decl 5 0 74]),
     (15237, [Entry 1 True, REDUCE sym_fb_decl 11 0 2108]),
     (15239, [Entry 1 False, REDUCE sym_fb_decl 11 0 2108]),
     (15241, [Entry 1 True, REDUCE sym_class_decl 9 0 949]),
     (15243, [Entry 1 False, REDUCE sym_class_decl 9 0 949]),
     (15245, [Entry 1 True, REDUCE sym_fb_decl 11 0 1651]),
     (15247, [Entry 1 False, REDUCE sym_fb_decl 11 0 1651]),
     (15249, [Entry 1 True, REDUCE sym_fb_decl 11 0 2109]),
     (15251, [Entry 1 False, REDUCE sym_fb_decl 11 0 2109]),
     (15253, [Entry 1 True, REDUCE sym_fb_decl 11 0 2110]),
     (15255, [Entry 1 False, REDUCE sym_fb_decl 11 0 2110]),
     (15257, [Entry 1 True, REDUCE sym_fb_decl 11 0 2111]),
     (15259, [Entry 1 False, REDUCE sym_fb_decl 11 0 2111]),
     (15261, [Entry 1 True, REDUCE sym_fb_decl 11 0 2112]),
     (15263, [Entry 1 False, REDUCE sym_fb_decl 11 0 2112]),
     (15265, [Entry 1 True, REDUCE sym_fb_decl 11 0 2113]),
     (15267, [Entry 1 False, REDUCE sym_fb_decl 11 0 2113]),
     (15269, [Entry 1 True, REDUCE sym_fb_decl 11 0 1661]),
     (15271, [Entry 1 False, REDUCE sym_fb_decl 11 0 1661]),
     (15273, [Entry 1 True, REDUCE sym_fb_decl 11 0 2114]),
     (15275, [Entry 1 False, REDUCE sym_fb_decl 11 0 2114]),
     (15277, [Entry 1 True, REDUCE sym_fb_decl 11 0 2115]),
     (15279, [Entry 1 False, REDUCE sym_fb_decl 11 0 2115]),
     (15281, [Entry 1 True, REDUCE sym_fb_decl 9 0 558]),
     (15283, [Entry 1 False, REDUCE sym_fb_decl 9 0 558]),
     (15285, [Entry 1 True, REDUCE sym_fb_decl 7 0 349]),
     (15287, [Entry 1 False, REDUCE sym_fb_decl 7 0 349]),
     (15289, [Entry 1 True, REDUCE sym_fb_decl 6 0 230]),
     (15291, [Entry 1 False, REDUCE sym_fb_decl 6 0 230]),
     (15293, [Entry 1 True, REDUCE sym_interface_decl 5 0 25]),
     (15295, [Entry 1 False, REDUCE sym_interface_decl 5 0 25]),
     (15297, [Entry 1 True, REDUCE sym_fb_decl 6 0 97]),
     (15299, [Entry 1 False, REDUCE sym_fb_decl 6 0 97]),
     (15301, [Entry 1 True, REDUCE sym_fb_decl 8 0 596]),
     (15303, [Entry 1 False, REDUCE sym_fb_decl 8 0 596]),
     (15305, [Entry 1 True, REDUCE sym_fb_decl 12 0 2123]),
     (15307, [Entry 1 False, REDUCE sym_fb_decl 12 0 2123]),
     (15309, [Entry 1 True, REDUCE sym_fb_decl 12 0 2124]),
     (15311, [Entry 1 False, REDUCE sym_fb_decl 12 0 2124]),
     (15313, [Entry 1 True, REDUCE sym_fb_decl 12 0 2125]),
     (15315, [Entry 1 False, REDUCE sym_fb_decl 12 0 2125]),
     (15317, [Entry 1 True, REDUCE sym_fb_decl 12 0 1692]),
     (15319, [Entry 1 False, REDUCE sym_fb_decl 12 0 1692]),
     (15321, [Entry 1 True, REDUCE sym_fb_decl 12 0 2126]),
     (15323, [Entry 1 False, REDUCE sym_fb_decl 12 0 2126]),
     (15325, [Entry 1 True, REDUCE sym_fb_decl 12 0 2127]),
     (15327, [Entry 1 False, REDUCE sym_fb_decl 12 0 2127]),
     (15329, [Entry 1 True, REDUCE sym_fb_decl 12 0 2128]),
     (15331, [Entry 1 False, REDUCE sym_fb_decl 12 0 2128]),
     (15333, [Entry 1 True, REDUCE sym_fb_decl 12 0 1696]),
     (15335, [Entry 1 False, REDUCE sym_fb_decl 12 0 1696]),
     (15337, [Entry 1 True, REDUCE sym_fb_decl 12 0 2129]),
     (15339, [Entry 1 False, REDUCE sym_fb_decl 12 0 2129]),
     (15341, [Entry 1 True, REDUCE sym_fb_decl 12 0 2130]),
     (15343, [Entry 1 False, REDUCE sym_fb_decl 12 0 2130]),
     (15345, [Entry 1 True, REDUCE sym_fb_decl 12 0 1698]),
     (15347, [Entry 1 False, REDUCE sym_fb_decl 12 0 1698]),
     (15349, [Entry 1 True, REDUCE sym_fb_decl 12 0 2131]),
     (15351, [Entry 1 False, REDUCE sym_fb_decl 12 0 2131]),
     (15353, [Entry 1 True, REDUCE sym_fb_decl 12 0 2132]),
     (15355, [Entry 1 False, REDUCE sym_fb_decl 12 0 2132]),
     (15357, [Entry 1 True, REDUCE sym_fb_decl 6 0 217]),
     (15359, [Entry 1 False, REDUCE sym_fb_decl 6 0 217]),
     (15361, [Entry 1 True, REDUCE sym_fb_decl 12 0 1699]),
     (15363, [Entry 1 False, REDUCE sym_fb_decl 12 0 1699]),
     (15365, [Entry 1 True, REDUCE sym_fb_decl 12 0 2133]),
     (15367, [Entry 1 False, REDUCE sym_fb_decl 12 0 2133]),
     (15369, [Entry 1 True, REDUCE sym_fb_decl 12 0 2134]),
     (15371, [Entry 1 False, REDUCE sym_fb_decl 12 0 2134]),
     (15373, [Entry 1 True, REDUCE sym_fb_decl 12 0 2135]),
     (15375, [Entry 1 False, REDUCE sym_fb_decl 12 0 2135]),
     (15377, [Entry 1 True, REDUCE sym_fb_decl 12 0 1705]),
     (15379, [Entry 1 False, REDUCE sym_fb_decl 12 0 1705]),
     (15381, [Entry 1 True, REDUCE sym_fb_decl 12 0 2136]),
     (15383, [Entry 1 False, REDUCE sym_fb_decl 12 0 2136]),
     (15385, [Entry 1 True, REDUCE sym_fb_decl 12 0 2137]),
     (15387, [Entry 1 False, REDUCE sym_fb_decl 12 0 2137]),
     (15389, [Entry 1 True, REDUCE sym_fb_decl 12 0 1707]),
     (15391, [Entry 1 False, REDUCE sym_fb_decl 12 0 1707]),
     (15393, [Entry 1 True, REDUCE sym_fb_decl 12 0 2138]),
     (15395, [Entry 1 False, REDUCE sym_fb_decl 12 0 2138]),
     (15397, [Entry 1 True, REDUCE sym_fb_decl 12 0 2139]),
     (15399, [Entry 1 False, REDUCE sym_fb_decl 12 0 2139]),
     (15401, [Entry 1 True, REDUCE sym_fb_decl 8 0 597]),
     (15403, [Entry 1 False, REDUCE sym_fb_decl 8 0 597]),
     (15405, [Entry 1 True, REDUCE sym_fb_decl 12 0 1708]),
     (15407, [Entry 1 False, REDUCE sym_fb_decl 12 0 1708]),
     (15409, [Entry 1 True, REDUCE sym_fb_decl 12 0 2140]),
     (15411, [Entry 1 False, REDUCE sym_fb_decl 12 0 2140]),
     (15413, [Entry 1 True, REDUCE sym_fb_decl 12 0 2141]),
     (15415, [Entry 1 False, REDUCE sym_fb_decl 12 0 2141]),
     (15417, [Entry 1 True, REDUCE sym_fb_decl 12 0 1709]),
     (15419, [Entry 1 False, REDUCE sym_fb_decl 12 0 1709]),
     (15421, [Entry 1 True, REDUCE sym_fb_decl 12 0 2142]),
     (15423, [Entry 1 False, REDUCE sym_fb_decl 12 0 2142]),
     (15425, [Entry 1 True, REDUCE sym_fb_decl 12 0 2143]),
     (15427, [Entry 1 False, REDUCE sym_fb_decl 12 0 2143]),
     (15429, [Entry 1 True, REDUCE sym_fb_decl 8 0 339]),
     (15431, [Entry 1 False, REDUCE sym_fb_decl 8 0 339]),
     (15433, [Entry 1 True, REDUCE sym_fb_decl 12 0 1710]),
     (15435, [Entry 1 False, REDUCE sym_fb_decl 12 0 1710]),
     (15437, [Entry 1 True, REDUCE sym_fb_decl 12 0 2144]),
     (15439, [Entry 1 False, REDUCE sym_fb_decl 12 0 2144]),
     (15441, [Entry 1 True, REDUCE sym_fb_decl 12 0 2145]),
     (15443, [Entry 1 False, REDUCE sym_fb_decl 12 0 2145]),
     (15445, [Entry 1 True, REDUCE sym_fb_decl 8 0 598]),
     (15447, [Entry 1 False, REDUCE sym_fb_decl 8 0 598]),
     (15449, [Entry 1 True, REDUCE sym_fb_decl 8 0 599]),
     (15451, [Entry 1 False, REDUCE sym_fb_decl 8 0 599]),
     (15453, [Entry 1 True, REDUCE sym_fb_decl 12 0 2146]),
     (15455, [Entry 1 False, REDUCE sym_fb_decl 12 0 2146]),
     (15457, [Entry 1 True, REDUCE sym_fb_decl 8 0 341]),
     (15459, [Entry 1 False, REDUCE sym_fb_decl 8 0 341]),
     (15461, [Entry 1 True, REDUCE sym_fb_decl 12 0 1711]),
     (15463, [Entry 1 False, REDUCE sym_fb_decl 12 0 1711]),
     (15465, [Entry 1 True, REDUCE sym_fb_decl 12 0 2147]),
     (15467, [Entry 1 False, REDUCE sym_fb_decl 12 0 2147]),
     (15469, [Entry 1 True, REDUCE sym_fb_decl 12 0 2148]),
     (15471, [Entry 1 False, REDUCE sym_fb_decl 12 0 2148]),
     (15473, [Entry 1 True, REDUCE sym_fb_decl 12 0 2149]),
     (15475, [Entry 1 False, REDUCE sym_fb_decl 12 0 2149]),
     (15477, [Entry 1 True, REDUCE sym_fb_decl 12 0 2150]),
     (15479, [Entry 1 False, REDUCE sym_fb_decl 12 0 2150]),
     (15481, [Entry 1 True, REDUCE sym_fb_decl 12 0 2151]),
     (15483, [Entry 1 False, REDUCE sym_fb_decl 12 0 2151]),
     (15485, [Entry 1 True, REDUCE sym_fb_decl 12 0 1721]),
     (15487, [Entry 1 False, REDUCE sym_fb_decl 12 0 1721]),
     (15489, [Entry 1 True, REDUCE sym_fb_decl 12 0 2152]),
     (15491, [Entry 1 False, REDUCE sym_fb_decl 12 0 2152]),
     (15493, [Entry 1 True, REDUCE sym_fb_decl 12 0 2153]),
     (15495, [Entry 1 False, REDUCE sym_fb_decl 12 0 2153]),
     (15497, [Entry 1 True, REDUCE sym_fb_decl 12 0 2154]),
     (15499, [Entry 1 False, REDUCE sym_fb_decl 12 0 2154]),
     (15501, [Entry 1 True, REDUCE sym_fb_decl 12 0 2155]),
     (15503, [Entry 1 False, REDUCE sym_fb_decl 12 0 2155]),
     (15505, [Entry 1 True, REDUCE sym_fb_decl 12 0 2156]),
     (15507, [Entry 1 False, REDUCE sym_fb_decl 12 0 2156]),
     (15509, [Entry 1 True, REDUCE sym_fb_decl 12 0 1732]),
     (15511, [Entry 1 False, REDUCE sym_fb_decl 12 0 1732]),
     (15513, [Entry 1 True, REDUCE sym_fb_decl 12 0 2157]),
     (15515, [Entry 1 False, REDUCE sym_fb_decl 12 0 2157]),
     (15517, [Entry 1 True, REDUCE sym_fb_decl 12 0 2158])]"

lemma ts_parse_actions_51_tiled: "tiled_from 15219 ts_parse_actions_51 \<and> after_runs 15219 ts_parse_actions_51 = 15519"
  unfolding ts_parse_actions_51_def by (simp cong: runs_weak)

lemma ts_parse_actions_51_ok: "list_all (\<lambda>(i, es). group_ok es) ts_parse_actions_51"
  unfolding ts_parse_actions_51_def
  by (simp add: group_ok_simps entry_action_ok_simps del: One_nat_def group_ok.simps cong: list_all_weak)

text \<open>Lines 488371 to 488520.\<close>

definition ts_parse_actions_52 :: "(nat \<times> TSParseActionEntry list) list" where
  "ts_parse_actions_52 =
    [(15519, [Entry 1 False, REDUCE sym_fb_decl 12 0 2158]),
     (15521, [Entry 1 True, REDUCE sym_fb_decl 12 0 2159]),
     (15523, [Entry 1 False, REDUCE sym_fb_decl 12 0 2159]),
     (15525, [Entry 1 True, REDUCE sym_fb_decl 12 0 1737]),
     (15527, [Entry 1 False, REDUCE sym_fb_decl 12 0 1737]),
     (15529, [Entry 1 True, REDUCE sym_fb_decl 12 0 2160]),
     (15531, [Entry 1 False, REDUCE sym_fb_decl 12 0 2160]),
     (15533, [Entry 1 True, REDUCE sym_fb_decl 12 0 2161]),
     (15535, [Entry 1 False, REDUCE sym_fb_decl 12 0 2161]),
     (15537, [Entry 1 True, REDUCE sym_fb_decl 12 0 1739]),
     (15539, [Entry 1 False, REDUCE sym_fb_decl 12 0 1739]),
     (15541, [Entry 1 True, REDUCE sym_fb_decl 12 0 2162]),
     (15543, [Entry 1 False, REDUCE sym_fb_decl 12 0 2162]),
     (15545, [Entry 1 True, REDUCE sym_fb_decl 12 0 2163]),
     (15547, [Entry 1 False, REDUCE sym_fb_decl 12 0 2163]),
     (15549, [Entry 1 True, REDUCE sym_fb_decl 8 0 600]),
     (15551, [Entry 1 False, REDUCE sym_fb_decl 8 0 600]),
     (15553, [Entry 1 True, REDUCE sym_fb_decl 12 0 1740]),
     (15555, [Entry 1 False, REDUCE sym_fb_decl 12 0 1740]),
     (15557, [Entry 1 True, REDUCE sym_fb_decl 12 0 2164]),
     (15559, [Entry 1 False, REDUCE sym_fb_decl 12 0 2164]),
     (15561, [Entry 1 True, REDUCE sym_fb_decl 12 0 2165]),
     (15563, [Entry 1 False, REDUCE sym_fb_decl 12 0 2165]),
     (15565, [Entry 1 True, REDUCE sym_fb_decl 12 0 1741]),
     (15567, [Entry 1 False, REDUCE sym_fb_decl 12 0 1741]),
     (15569, [Entry 1 True, REDUCE sym_fb_decl 12 0 2166]),
     (15571, [Entry 1 False, REDUCE sym_fb_decl 12 0 2166]),
     (15573, [Entry 1 True, REDUCE sym_fb_decl 12 0 2167]),
     (15575, [Entry 1 False, REDUCE sym_fb_decl 12 0 2167]),
     (15577, [Entry 1 True, REDUCE sym_fb_decl 8 0 601]),
     (15579, [Entry 1 False, REDUCE sym_fb_decl 8 0 601]),
     (15581, [Entry 1 True, REDUCE sym_fb_decl 12 0 1742]),
     (15583, [Entry 1 False, REDUCE sym_fb_decl 12 0 1742]),
     (15585, [Entry 1 True, REDUCE sym_fb_decl 12 0 2168]),
     (15587, [Entry 1 False, REDUCE sym_fb_decl 12 0 2168]),
     (15589, [Entry 1 True, REDUCE sym_fb_decl 12 0 2169]),
     (15591, [Entry 1 False, REDUCE sym_fb_decl 12 0 2169]),
     (15593, [Entry 1 True, REDUCE sym_fb_decl 6 0 231]),
     (15595, [Entry 1 False, REDUCE sym_fb_decl 6 0 231]),
     (15597, [Entry 1 True, REDUCE sym_fb_decl 8 0 342]),
     (15599, [Entry 1 False, REDUCE sym_fb_decl 8 0 342]),
     (15601, [Entry 1 True, REDUCE sym_fb_decl 12 0 2170]),
     (15603, [Entry 1 False, REDUCE sym_fb_decl 12 0 2170]),
     (15605, [Entry 1 True, REDUCE sym_fb_decl 8 0 602]),
     (15607, [Entry 1 False, REDUCE sym_fb_decl 8 0 602]),
     (15609, [Entry 1 True, REDUCE sym_fb_decl 12 0 1743]),
     (15611, [Entry 1 False, REDUCE sym_fb_decl 12 0 1743]),
     (15613, [Entry 1 True, REDUCE sym_fb_decl 12 0 2171]),
     (15615, [Entry 1 False, REDUCE sym_fb_decl 12 0 2171]),
     (15617, [Entry 1 True, REDUCE sym_fb_decl 12 0 2172]),
     (15619, [Entry 1 False, REDUCE sym_fb_decl 12 0 2172]),
     (15621, [Entry 1 True, REDUCE sym_fb_decl 12 0 2173]),
     (15623, [Entry 1 False, REDUCE sym_fb_decl 12 0 2173]),
     (15625, [Entry 1 True, REDUCE sym_fb_decl 12 0 2174]),
     (15627, [Entry 1 False, REDUCE sym_fb_decl 12 0 2174]),
     (15629, [Entry 1 True, REDUCE sym_fb_decl 12 0 1750]),
     (15631, [Entry 1 False, REDUCE sym_fb_decl 12 0 1750]),
     (15633, [Entry 1 True, REDUCE sym_fb_decl 12 0 2175]),
     (15635, [Entry 1 False, REDUCE sym_fb_decl 12 0 2175]),
     (15637, [Entry 1 True, REDUCE sym_fb_decl 12 0 2176]),
     (15639, [Entry 1 False, REDUCE sym_fb_decl 12 0 2176]),
     (15641, [Entry 1 True, REDUCE sym_fb_decl 8 0 603]),
     (15643, [Entry 1 False, REDUCE sym_fb_decl 8 0 603]),
     (15645, [Entry 1 True, REDUCE sym_fb_decl 12 0 1751]),
     (15647, [Entry 1 False, REDUCE sym_fb_decl 12 0 1751]),
     (15649, [Entry 1 True, REDUCE sym_fb_decl 12 0 2177]),
     (15651, [Entry 1 False, REDUCE sym_fb_decl 12 0 2177]),
     (15653, [Entry 1 True, REDUCE sym_fb_decl 12 0 2178]),
     (15655, [Entry 1 False, REDUCE sym_fb_decl 12 0 2178]),
     (15657, [Entry 1 True, REDUCE sym_fb_decl 8 0 343]),
     (15659, [Entry 1 False, REDUCE sym_fb_decl 8 0 343]),
     (15661, [Entry 1 True, REDUCE sym_fb_decl 8 0 604]),
     (15663, [Entry 1 False, REDUCE sym_fb_decl 8 0 604]),
     (15665, [Entry 1 True, REDUCE sym_fb_decl 12 0 2179]),
     (15667, [Entry 1 False, REDUCE sym_fb_decl 12 0 2179]),
     (15669, [Entry 1 True, REDUCE sym_fb_decl 8 0 605]),
     (15671, [Entry 1 False, REDUCE sym_fb_decl 8 0 605]),
     (15673, [Entry 1 True, REDUCE sym_fb_decl 12 0 1284]),
     (15675, [Entry 1 False, REDUCE sym_fb_decl 12 0 1284]),
     (15677, [Entry 1 True, REDUCE sym_fb_decl 12 0 2180]),
     (15679, [Entry 1 False, REDUCE sym_fb_decl 12 0 2180]),
     (15681, [Entry 1 True, REDUCE sym_interface_decl 5 0 88]),
     (15683, [Entry 1 False, REDUCE sym_interface_decl 5 0 88]),
     (15685, [Entry 1 True, REDUCE sym_fb_decl 8 0 344]),
     (15687, [Entry 1 False, REDUCE sym_fb_decl 8 0 344]),
     (15689, [Entry 1 True, REDUCE sym_fb_decl 12 0 2181]),
     (15691, [Entry 1 False, REDUCE sym_fb_decl 12 0 2181]),
     (15693, [Entry 1 True, REDUCE sym_fb_decl 8 0 606]),
     (15695, [Entry 1 False, REDUCE sym_fb_decl 8 0 606]),
     (15697, [Entry 1 True, REDUCE sym_fb_decl 8 0 607]),
     (15699, [Entry 1 False, REDUCE sym_fb_decl 8 0 607]),
     (15701, [Entry 1 True, REDUCE sym_fb_decl 6 0 96]),
     (15703, [Entry 1 False, REDUCE sym_fb_decl 6 0 96]),
     (15705, [Entry 1 True, REDUCE sym_fb_decl 12 0 2182]),
     (15707, [Entry 1 False, REDUCE sym_fb_decl 12 0 2182]),
     (15709, [Entry 1 True, REDUCE sym_fb_decl 6 0 215]),
     (15711, [Entry 1 False, REDUCE sym_fb_decl 6 0 215]),
     (15713, [Entry 1 True, REDUCE sym_fb_decl 12 0 1752]),
     (15715, [Entry 1 False, REDUCE sym_fb_decl 12 0 1752]),
     (15717, [Entry 1 True, REDUCE sym_fb_decl 12 0 2183]),
     (15719, [Entry 1 False, REDUCE sym_fb_decl 12 0 2183]),
     (15721, [Entry 1 True, REDUCE sym_fb_decl 12 0 2184]),
     (15723, [Entry 1 False, REDUCE sym_fb_decl 12 0 2184]),
     (15725, [Entry 1 True, REDUCE sym_fb_decl 12 0 2185]),
     (15727, [Entry 1 False, REDUCE sym_fb_decl 12 0 2185]),
     (15729, [Entry 1 True, REDUCE sym_fb_decl 12 0 1757]),
     (15731, [Entry 1 False, REDUCE sym_fb_decl 12 0 1757]),
     (15733, [Entry 1 True, REDUCE sym_fb_decl 12 0 2186]),
     (15735, [Entry 1 False, REDUCE sym_fb_decl 12 0 2186]),
     (15737, [Entry 1 True, REDUCE sym_fb_decl 12 0 2187]),
     (15739, [Entry 1 False, REDUCE sym_fb_decl 12 0 2187]),
     (15741, [Entry 1 True, REDUCE sym_fb_decl 12 0 2188]),
     (15743, [Entry 1 False, REDUCE sym_fb_decl 12 0 2188]),
     (15745, [Entry 1 True, REDUCE sym_fb_decl 12 0 1761]),
     (15747, [Entry 1 False, REDUCE sym_fb_decl 12 0 1761]),
     (15749, [Entry 1 True, REDUCE sym_fb_decl 12 0 2189]),
     (15751, [Entry 1 False, REDUCE sym_fb_decl 12 0 2189]),
     (15753, [Entry 1 True, REDUCE sym_fb_decl 12 0 2190]),
     (15755, [Entry 1 False, REDUCE sym_fb_decl 12 0 2190]),
     (15757, [Entry 1 True, REDUCE sym_fb_decl 12 0 1763]),
     (15759, [Entry 1 False, REDUCE sym_fb_decl 12 0 1763]),
     (15761, [Entry 1 True, REDUCE sym_fb_decl 12 0 2191]),
     (15763, [Entry 1 False, REDUCE sym_fb_decl 12 0 2191]),
     (15765, [Entry 1 True, REDUCE sym_fb_decl 12 0 2192]),
     (15767, [Entry 1 False, REDUCE sym_fb_decl 12 0 2192]),
     (15769, [Entry 1 True, REDUCE sym_fb_decl 8 0 608]),
     (15771, [Entry 1 False, REDUCE sym_fb_decl 8 0 608]),
     (15773, [Entry 1 True, REDUCE sym_fb_decl 12 0 1764]),
     (15775, [Entry 1 False, REDUCE sym_fb_decl 12 0 1764]),
     (15777, [Entry 1 True, REDUCE sym_fb_decl 12 0 2193]),
     (15779, [Entry 1 False, REDUCE sym_fb_decl 12 0 2193]),
     (15781, [Entry 1 True, REDUCE sym_fb_decl 12 0 2194]),
     (15783, [Entry 1 False, REDUCE sym_fb_decl 12 0 2194]),
     (15785, [Entry 1 True, REDUCE sym_fb_decl 12 0 2195]),
     (15787, [Entry 1 False, REDUCE sym_fb_decl 12 0 2195]),
     (15789, [Entry 1 True, REDUCE sym_fb_decl 12 0 2196]),
     (15791, [Entry 1 False, REDUCE sym_fb_decl 12 0 2196]),
     (15793, [Entry 1 True, REDUCE sym_fb_decl 12 0 1771]),
     (15795, [Entry 1 False, REDUCE sym_fb_decl 12 0 1771]),
     (15797, [Entry 1 True, REDUCE sym_fb_decl 12 0 2197]),
     (15799, [Entry 1 False, REDUCE sym_fb_decl 12 0 2197]),
     (15801, [Entry 1 True, REDUCE sym_fb_decl 12 0 2198]),
     (15803, [Entry 1 False, REDUCE sym_fb_decl 12 0 2198]),
     (15805, [Entry 1 True, REDUCE sym_fb_decl 12 0 2199]),
     (15807, [Entry 1 False, REDUCE sym_fb_decl 12 0 2199]),
     (15809, [Entry 1 True, REDUCE sym_fb_decl 12 0 1775]),
     (15811, [Entry 1 False, REDUCE sym_fb_decl 12 0 1775]),
     (15813, [Entry 1 True, REDUCE sym_fb_decl 12 0 2200]),
     (15815, [Entry 1 False, REDUCE sym_fb_decl 12 0 2200]),
     (15817, [Entry 1 True, REDUCE sym_fb_decl 12 0 2201])]"

lemma ts_parse_actions_52_tiled: "tiled_from 15519 ts_parse_actions_52 \<and> after_runs 15519 ts_parse_actions_52 = 15819"
  unfolding ts_parse_actions_52_def by (simp cong: runs_weak)

lemma ts_parse_actions_52_ok: "list_all (\<lambda>(i, es). group_ok es) ts_parse_actions_52"
  unfolding ts_parse_actions_52_def
  by (simp add: group_ok_simps entry_action_ok_simps del: One_nat_def group_ok.simps cong: list_all_weak)

text \<open>Lines 488521 to 488670.\<close>

definition ts_parse_actions_53 :: "(nat \<times> TSParseActionEntry list) list" where
  "ts_parse_actions_53 =
    [(15819, [Entry 1 False, REDUCE sym_fb_decl 12 0 2201]),
     (15821, [Entry 1 True, REDUCE sym_fb_decl 12 0 1777]),
     (15823, [Entry 1 False, REDUCE sym_fb_decl 12 0 1777]),
     (15825, [Entry 1 True, REDUCE sym_fb_decl 12 0 2202]),
     (15827, [Entry 1 False, REDUCE sym_fb_decl 12 0 2202]),
     (15829, [Entry 1 True, REDUCE sym_fb_decl 12 0 2203]),
     (15831, [Entry 1 False, REDUCE sym_fb_decl 12 0 2203]),
     (15833, [Entry 1 True, REDUCE sym_fb_decl 6 0 216]),
     (15835, [Entry 1 False, REDUCE sym_fb_decl 6 0 216]),
     (15837, [Entry 1 True, REDUCE sym_fb_decl 12 0 1778]),
     (15839, [Entry 1 False, REDUCE sym_fb_decl 12 0 1778]),
     (15841, [Entry 1 True, REDUCE sym_fb_decl 12 0 2204]),
     (15843, [Entry 1 False, REDUCE sym_fb_decl 12 0 2204]),
     (15845, [Entry 1 True, REDUCE sym_fb_decl 12 0 2205]),
     (15847, [Entry 1 False, REDUCE sym_fb_decl 12 0 2205]),
     (15849, [Entry 1 True, REDUCE sym_fb_decl 12 0 2206]),
     (15851, [Entry 1 False, REDUCE sym_fb_decl 12 0 2206]),
     (15853, [Entry 1 True, REDUCE sym_fb_decl 12 0 2207]),
     (15855, [Entry 1 False, REDUCE sym_fb_decl 12 0 2207]),
     (15857, [Entry 1 True, REDUCE sym_fb_decl 12 0 2208]),
     (15859, [Entry 1 False, REDUCE sym_fb_decl 12 0 2208]),
     (15861, [Entry 1 True, REDUCE sym_fb_decl 12 0 2209]),
     (15863, [Entry 1 False, REDUCE sym_fb_decl 12 0 2209]),
     (15865, [Entry 1 True, REDUCE sym_fb_decl 12 0 1795]),
     (15867, [Entry 1 False, REDUCE sym_fb_decl 12 0 1795]),
     (15869, [Entry 1 True, REDUCE sym_fb_decl 12 0 2210]),
     (15871, [Entry 1 False, REDUCE sym_fb_decl 12 0 2210]),
     (15873, [Entry 1 True, REDUCE sym_fb_decl 12 0 2211]),
     (15875, [Entry 1 False, REDUCE sym_fb_decl 12 0 2211]),
     (15877, [Entry 1 True, REDUCE sym_fb_decl 12 0 2212]),
     (15879, [Entry 1 False, REDUCE sym_fb_decl 12 0 2212]),
     (15881, [Entry 1 True, REDUCE sym_fb_decl 12 0 2213]),
     (15883, [Entry 1 False, REDUCE sym_fb_decl 12 0 2213]),
     (15885, [Entry 1 True, REDUCE sym_fb_decl 12 0 1802]),
     (15887, [Entry 1 False, REDUCE sym_fb_decl 12 0 1802]),
     (15889, [Entry 1 True, REDUCE sym_fb_decl 12 0 2214]),
     (15891, [Entry 1 False, REDUCE sym_fb_decl 12 0 2214]),
     (15893, [Entry 1 True, REDUCE sym_fb_decl 12 0 2215]),
     (15895, [Entry 1 False, REDUCE sym_fb_decl 12 0 2215]),
     (15897, [Entry 1 True, REDUCE sym_fb_decl 12 0 2216]),
     (15899, [Entry 1 False, REDUCE sym_fb_decl 12 0 2216]),
     (15901, [Entry 1 True, REDUCE sym_fb_decl 12 0 1806]),
     (15903, [Entry 1 False, REDUCE sym_fb_decl 12 0 1806]),
     (15905, [Entry 1 True, REDUCE sym_fb_decl 12 0 2217]),
     (15907, [Entry 1 False, REDUCE sym_fb_decl 12 0 2217]),
     (15909, [Entry 1 True, REDUCE sym_fb_decl 12 0 2218]),
     (15911, [Entry 1 False, REDUCE sym_fb_decl 12 0 2218]),
     (15913, [Entry 1 True, REDUCE sym_fb_decl 12 0 1808]),
     (15915, [Entry 1 False, REDUCE sym_fb_decl 12 0 1808]),
     (15917, [Entry 1 True, REDUCE sym_fb_decl 12 0 2219]),
     (15919, [Entry 1 False, REDUCE sym_fb_decl 12 0 2219]),
     (15921, [Entry 1 True, REDUCE sym_fb_decl 12 0 2220]),
     (15923, [Entry 1 False, REDUCE sym_fb_decl 12 0 2220]),
     (15925, [Entry 1 True, REDUCE sym_fb_decl 8 0 345]),
     (15927, [Entry 1 False, REDUCE sym_fb_decl 8 0 345]),
     (15929, [Entry 1 True, REDUCE sym_fb_decl 12 0 1809]),
     (15931, [Entry 1 False, REDUCE sym_fb_decl 12 0 1809]),
     (15933, [Entry 1 True, REDUCE sym_fb_decl 12 0 2221]),
     (15935, [Entry 1 False, REDUCE sym_fb_decl 12 0 2221]),
     (15937, [Entry 1 True, REDUCE sym_fb_decl 12 0 2222]),
     (15939, [Entry 1 False, REDUCE sym_fb_decl 12 0 2222]),
     (15941, [Entry 1 True, REDUCE sym_fb_decl 12 0 2223]),
     (15943, [Entry 1 False, REDUCE sym_fb_decl 12 0 2223]),
     (15945, [Entry 1 True, REDUCE sym_fb_decl 12 0 2224]),
     (15947, [Entry 1 False, REDUCE sym_fb_decl 12 0 2224]),
     (15949, [Entry 1 True, REDUCE sym_fb_decl 12 0 2225]),
     (15951, [Entry 1 False, REDUCE sym_fb_decl 12 0 2225]),
     (15953, [Entry 1 True, REDUCE sym_fb_decl 12 0 2226]),
     (15955, [Entry 1 False, REDUCE sym_fb_decl 12 0 2226]),
     (15957, [Entry 1 True, REDUCE sym_fb_decl 12 0 1826]),
     (15959, [Entry 1 False, REDUCE sym_fb_decl 12 0 1826]),
     (15961, [Entry 1 True, REDUCE sym_fb_decl 12 0 2227]),
     (15963, [Entry 1 False, REDUCE sym_fb_decl 12 0 2227]),
     (15965, [Entry 1 True, REDUCE sym_fb_decl 12 0 2228]),
     (15967, [Entry 1 False, REDUCE sym_fb_decl 12 0 2228]),
     (15969, [Entry 1 True, REDUCE sym_fb_decl 12 0 2229]),
     (15971, [Entry 1 False, REDUCE sym_fb_decl 12 0 2229]),
     (15973, [Entry 1 True, REDUCE sym_fb_decl 12 0 1830]),
     (15975, [Entry 1 False, REDUCE sym_fb_decl 12 0 1830]),
     (15977, [Entry 1 True, REDUCE sym_fb_decl 12 0 2230]),
     (15979, [Entry 1 False, REDUCE sym_fb_decl 12 0 2230]),
     (15981, [Entry 1 True, REDUCE sym_fb_decl 12 0 2231]),
     (15983, [Entry 1 False, REDUCE sym_fb_decl 12 0 2231]),
     (15985, [Entry 1 True, REDUCE sym_fb_decl 12 0 1832]),
     (15987, [Entry 1 False, REDUCE sym_fb_decl 12 0 1832]),
     (15989, [Entry 1 True, REDUCE sym_fb_decl 12 0 2232]),
     (15991, [Entry 1 False, REDUCE sym_fb_decl 12 0 2232]),
     (15993, [Entry 1 True, REDUCE sym_fb_decl 12 0 2233]),
     (15995, [Entry 1 False, REDUCE sym_fb_decl 12 0 2233]),
     (15997, [Entry 1 True, REDUCE sym_fb_decl 8 0 609]),
     (15999, [Entry 1 False, REDUCE sym_fb_decl 8 0 609]),
     (16001, [Entry 1 True, REDUCE sym_fb_decl 12 0 1833]),
     (16003, [Entry 1 False, REDUCE sym_fb_decl 12 0 1833]),
     (16005, [Entry 1 True, REDUCE sym_fb_decl 12 0 2234]),
     (16007, [Entry 1 False, REDUCE sym_fb_decl 12 0 2234]),
     (16009, [Entry 1 True, REDUCE sym_fb_decl 12 0 2235]),
     (16011, [Entry 1 False, REDUCE sym_fb_decl 12 0 2235]),
     (16013, [Entry 1 True, REDUCE sym_fb_decl 12 0 2236]),
     (16015, [Entry 1 False, REDUCE sym_fb_decl 12 0 2236]),
     (16017, [Entry 1 True, REDUCE sym_fb_decl 12 0 1839]),
     (16019, [Entry 1 False, REDUCE sym_fb_decl 12 0 1839]),
     (16021, [Entry 1 True, REDUCE sym_fb_decl 12 0 2237]),
     (16023, [Entry 1 False, REDUCE sym_fb_decl 12 0 2237]),
     (16025, [Entry 1 True, REDUCE sym_fb_decl 12 0 2238]),
     (16027, [Entry 1 False, REDUCE sym_fb_decl 12 0 2238]),
     (16029, [Entry 1 True, REDUCE sym_fb_decl 12 0 1841]),
     (16031, [Entry 1 False, REDUCE sym_fb_decl 12 0 1841]),
     (16033, [Entry 1 True, REDUCE sym_fb_decl 12 0 2239]),
     (16035, [Entry 1 False, REDUCE sym_fb_decl 12 0 2239]),
     (16037, [Entry 1 True, REDUCE sym_fb_decl 12 0 2240]),
     (16039, [Entry 1 False, REDUCE sym_fb_decl 12 0 2240]),
     (16041, [Entry 1 True, REDUCE sym_fb_decl 8 0 610]),
     (16043, [Entry 1 False, REDUCE sym_fb_decl 8 0 610]),
     (16045, [Entry 1 True, REDUCE sym_fb_decl 12 0 1842]),
     (16047, [Entry 1 False, REDUCE sym_fb_decl 12 0 1842]),
     (16049, [Entry 1 True, REDUCE sym_fb_decl 12 0 2241]),
     (16051, [Entry 1 False, REDUCE sym_fb_decl 12 0 2241]),
     (16053, [Entry 1 True, REDUCE sym_fb_decl 12 0 2242]),
     (16055, [Entry 1 False, REDUCE sym_fb_decl 12 0 2242]),
     (16057, [Entry 1 True, REDUCE sym_fb_decl 12 0 1843]),
     (16059, [Entry 1 False, REDUCE sym_fb_decl 12 0 1843]),
     (16061, [Entry 1 True, REDUCE sym_fb_decl 12 0 2243]),
     (16063, [Entry 1 False, REDUCE sym_fb_decl 12 0 2243]),
     (16065, [Entry 1 True, REDUCE sym_fb_decl 12 0 2244]),
     (16067, [Entry 1 False, REDUCE sym_fb_decl 12 0 2244]),
     (16069, [Entry 1 True, REDUCE sym_fb_decl 8 0 611]),
     (16071, [Entry 1 False, REDUCE sym_fb_decl 8 0 611]),
     (16073, [Entry 1 True, REDUCE sym_fb_decl 12 0 1844]),
     (16075, [Entry 1 False, REDUCE sym_fb_decl 12 0 1844]),
     (16077, [Entry 1 True, REDUCE sym_fb_decl 12 0 2245]),
     (16079, [Entry 1 False, REDUCE sym_fb_decl 12 0 2245]),
     (16081, [Entry 1 True, REDUCE sym_fb_decl 12 0 2246]),
     (16083, [Entry 1 False, REDUCE sym_fb_decl 12 0 2246]),
     (16085, [Entry 1 True, REDUCE sym_class_decl 8 0 352]),
     (16087, [Entry 1 False, REDUCE sym_class_decl 8 0 352]),
     (16089, [Entry 1 True, REDUCE sym_class_decl 8 0 612]),
     (16091, [Entry 1 False, REDUCE sym_class_decl 8 0 612]),
     (16093, [Entry 1 True, REDUCE sym_fb_decl 12 0 2247]),
     (16095, [Entry 1 False, REDUCE sym_fb_decl 12 0 2247]),
     (16097, [Entry 1 True, REDUCE sym_class_decl 8 0 193]),
     (16099, [Entry 1 False, REDUCE sym_class_decl 8 0 193]),
     (16101, [Entry 1 True, REDUCE sym_fb_decl 12 0 1845]),
     (16103, [Entry 1 False, REDUCE sym_fb_decl 12 0 1845]),
     (16105, [Entry 1 True, REDUCE sym_fb_decl 12 0 2248]),
     (16107, [Entry 1 False, REDUCE sym_fb_decl 12 0 2248]),
     (16109, [Entry 1 True, REDUCE sym_fb_decl 12 0 2249]),
     (16111, [Entry 1 False, REDUCE sym_fb_decl 12 0 2249]),
     (16113, [Entry 1 True, REDUCE sym_fb_decl 12 0 2250]),
     (16115, [Entry 1 False, REDUCE sym_fb_decl 12 0 2250]),
     (16117, [Entry 1 True, REDUCE sym_fb_decl 12 0 2251])]"

lemma ts_parse_actions_53_tiled: "tiled_from 15819 ts_parse_actions_53 \<and> after_runs 15819 ts_parse_actions_53 = 16119"
  unfolding ts_parse_actions_53_def by (simp cong: runs_weak)

lemma ts_parse_actions_53_ok: "list_all (\<lambda>(i, es). group_ok es) ts_parse_actions_53"
  unfolding ts_parse_actions_53_def
  by (simp add: group_ok_simps entry_action_ok_simps del: One_nat_def group_ok.simps cong: list_all_weak)

text \<open>Lines 488671 to 488820.\<close>

definition ts_parse_actions_54 :: "(nat \<times> TSParseActionEntry list) list" where
  "ts_parse_actions_54 =
    [(16119, [Entry 1 False, REDUCE sym_fb_decl 12 0 2251]),
     (16121, [Entry 1 True, REDUCE sym_fb_decl 12 0 2252]),
     (16123, [Entry 1 False, REDUCE sym_fb_decl 12 0 2252]),
     (16125, [Entry 1 True, REDUCE sym_fb_decl 12 0 1855]),
     (16127, [Entry 1 False, REDUCE sym_fb_decl 12 0 1855]),
     (16129, [Entry 1 True, REDUCE sym_fb_decl 12 0 2253]),
     (16131, [Entry 1 False, REDUCE sym_fb_decl 12 0 2253]),
     (16133, [Entry 1 True, REDUCE sym_fb_decl 12 0 2254]),
     (16135, [Entry 1 False, REDUCE sym_fb_decl 12 0 2254]),
     (16137, [Entry 1 True, REDUCE sym_fb_decl 12 0 2255]),
     (16139, [Entry 1 False, REDUCE sym_fb_decl 12 0 2255]),
     (16141, [Entry 1 True, REDUCE sym_fb_decl 12 0 2256]),
     (16143, [Entry 1 False, REDUCE sym_fb_decl 12 0 2256]),
     (16145, [Entry 1 True, REDUCE sym_fb_decl 12 0 2257]),
     (16147, [Entry 1 False, REDUCE sym_fb_decl 12 0 2257]),
     (16149, [Entry 1 True, REDUCE sym_fb_decl 12 0 1866]),
     (16151, [Entry 1 False, REDUCE sym_fb_decl 12 0 1866]),
     (16153, [Entry 1 True, REDUCE sym_fb_decl 12 0 2258]),
     (16155, [Entry 1 False, REDUCE sym_fb_decl 12 0 2258]),
     (16157, [Entry 1 True, REDUCE sym_fb_decl 12 0 2259]),
     (16159, [Entry 1 False, REDUCE sym_fb_decl 12 0 2259]),
     (16161, [Entry 1 True, REDUCE sym_class_decl 12 0 1870]),
     (16163, [Entry 1 False, REDUCE sym_class_decl 12 0 1870]),
     (16165, [Entry 1 True, REDUCE sym_class_decl 12 0 1871]),
     (16167, [Entry 1 False, REDUCE sym_class_decl 12 0 1871]),
     (16169, [Entry 1 True, REDUCE sym_class_decl 12 0 1872]),
     (16171, [Entry 1 False, REDUCE sym_class_decl 12 0 1872]),
     (16173, [Entry 1 True, REDUCE sym_class_decl 12 0 2260]),
     (16175, [Entry 1 False, REDUCE sym_class_decl 12 0 2260]),
     (16177, [Entry 1 True, REDUCE sym_class_decl 12 0 1873]),
     (16179, [Entry 1 False, REDUCE sym_class_decl 12 0 1873]),
     (16181, [Entry 1 True, REDUCE sym_class_decl 12 0 1874]),
     (16183, [Entry 1 False, REDUCE sym_class_decl 12 0 1874]),
     (16185, [Entry 1 True, REDUCE sym_class_decl 12 0 1875]),
     (16187, [Entry 1 False, REDUCE sym_class_decl 12 0 1875]),
     (16189, [Entry 1 True, REDUCE sym_class_decl 12 0 2261]),
     (16191, [Entry 1 False, REDUCE sym_class_decl 12 0 2261]),
     (16193, [Entry 1 True, REDUCE sym_class_decl 12 0 1876]),
     (16195, [Entry 1 False, REDUCE sym_class_decl 12 0 1876]),
     (16197, [Entry 1 True, REDUCE sym_class_decl 12 0 1877]),
     (16199, [Entry 1 False, REDUCE sym_class_decl 12 0 1877]),
     (16201, [Entry 1 True, REDUCE sym_class_decl 12 0 2262]),
     (16203, [Entry 1 False, REDUCE sym_class_decl 12 0 2262]),
     (16205, [Entry 1 True, REDUCE sym_class_decl 12 0 1432]),
     (16207, [Entry 1 False, REDUCE sym_class_decl 12 0 1432]),
     (16209, [Entry 1 True, REDUCE sym_class_decl 12 0 2263]),
     (16211, [Entry 1 False, REDUCE sym_class_decl 12 0 2263]),
     (16213, [Entry 1 True, REDUCE sym_fb_decl 9 0 910]),
     (16215, [Entry 1 False, REDUCE sym_fb_decl 9 0 910]),
     (16217, [Entry 1 True, REDUCE sym_class_decl 12 0 2264]),
     (16219, [Entry 1 False, REDUCE sym_class_decl 12 0 2264]),
     (16221, [Entry 1 True, REDUCE sym_class_decl 12 0 1878]),
     (16223, [Entry 1 False, REDUCE sym_class_decl 12 0 1878]),
     (16225, [Entry 1 True, REDUCE sym_class_decl 12 0 1879]),
     (16227, [Entry 1 False, REDUCE sym_class_decl 12 0 1879]),
     (16229, [Entry 1 True, REDUCE sym_class_decl 12 0 1880]),
     (16231, [Entry 1 False, REDUCE sym_class_decl 12 0 1880]),
     (16233, [Entry 1 True, REDUCE sym_class_decl 12 0 1881]),
     (16235, [Entry 1 False, REDUCE sym_class_decl 12 0 1881]),
     (16237, [Entry 1 True, REDUCE sym_class_decl 12 0 1882]),
     (16239, [Entry 1 False, REDUCE sym_class_decl 12 0 1882]),
     (16241, [Entry 1 True, REDUCE sym_class_decl 12 0 2265]),
     (16243, [Entry 1 False, REDUCE sym_class_decl 12 0 2265]),
     (16245, [Entry 1 True, REDUCE sym_class_decl 12 0 1883]),
     (16247, [Entry 1 False, REDUCE sym_class_decl 12 0 1883]),
     (16249, [Entry 1 True, REDUCE sym_class_decl 12 0 1884]),
     (16251, [Entry 1 False, REDUCE sym_class_decl 12 0 1884]),
     (16253, [Entry 1 True, REDUCE sym_class_decl 12 0 2266]),
     (16255, [Entry 1 False, REDUCE sym_class_decl 12 0 2266]),
     (16257, [Entry 1 True, REDUCE sym_class_decl 12 0 1442]),
     (16259, [Entry 1 False, REDUCE sym_class_decl 12 0 1442]),
     (16261, [Entry 1 True, REDUCE sym_class_decl 12 0 2267]),
     (16263, [Entry 1 False, REDUCE sym_class_decl 12 0 2267]),
     (16265, [Entry 1 True, REDUCE sym_class_decl 9 0 585]),
     (16267, [Entry 1 False, REDUCE sym_class_decl 9 0 585]),
     (16269, [Entry 1 True, REDUCE sym_class_decl 12 0 2268]),
     (16271, [Entry 1 False, REDUCE sym_class_decl 12 0 2268]),
     (16273, [Entry 1 True, REDUCE sym_class_decl 12 0 1885]),
     (16275, [Entry 1 False, REDUCE sym_class_decl 12 0 1885]),
     (16277, [Entry 1 True, REDUCE sym_class_decl 12 0 1886]),
     (16279, [Entry 1 False, REDUCE sym_class_decl 12 0 1886]),
     (16281, [Entry 1 True, REDUCE sym_class_decl 12 0 1887]),
     (16283, [Entry 1 False, REDUCE sym_class_decl 12 0 1887]),
     (16285, [Entry 1 True, REDUCE sym_class_decl 12 0 1888]),
     (16287, [Entry 1 False, REDUCE sym_class_decl 12 0 1888]),
     (16289, [Entry 1 True, REDUCE sym_class_decl 12 0 2269]),
     (16291, [Entry 1 False, REDUCE sym_class_decl 12 0 2269]),
     (16293, [Entry 1 True, REDUCE sym_class_decl 12 0 1449]),
     (16295, [Entry 1 False, REDUCE sym_class_decl 12 0 1449]),
     (16297, [Entry 1 True, REDUCE sym_class_decl 12 0 2270]),
     (16299, [Entry 1 False, REDUCE sym_class_decl 12 0 2270]),
     (16301, [Entry 1 True, REDUCE sym_class_decl 9 0 1021]),
     (16303, [Entry 1 False, REDUCE sym_class_decl 9 0 1021]),
     (16305, [Entry 1 True, REDUCE sym_class_decl 12 0 2271]),
     (16307, [Entry 1 False, REDUCE sym_class_decl 12 0 2271]),
     (16309, [Entry 1 True, REDUCE sym_class_decl 12 0 1889]),
     (16311, [Entry 1 False, REDUCE sym_class_decl 12 0 1889]),
     (16313, [Entry 1 True, REDUCE sym_class_decl 12 0 1890]),
     (16315, [Entry 1 False, REDUCE sym_class_decl 12 0 1890]),
     (16317, [Entry 1 True, REDUCE sym_class_decl 12 0 2272]),
     (16319, [Entry 1 False, REDUCE sym_class_decl 12 0 2272]),
     (16321, [Entry 1 True, REDUCE sym_class_decl 9 0 176]),
     (16323, [Entry 1 False, REDUCE sym_class_decl 9 0 176]),
     (16325, [Entry 1 True, REDUCE sym_class_decl 9 0 956]),
     (16327, [Entry 1 False, REDUCE sym_class_decl 9 0 956]),
     (16329, [Entry 1 True, REDUCE sym_fb_decl 9 0 911]),
     (16331, [Entry 1 False, REDUCE sym_fb_decl 9 0 911]),
     (16333, [Entry 1 True, REDUCE sym_class_decl 12 0 2273]),
     (16335, [Entry 1 False, REDUCE sym_class_decl 12 0 2273]),
     (16337, [Entry 1 True, REDUCE sym_class_decl 12 0 1891]),
     (16339, [Entry 1 False, REDUCE sym_class_decl 12 0 1891]),
     (16341, [Entry 1 True, REDUCE sym_class_decl 12 0 1892]),
     (16343, [Entry 1 False, REDUCE sym_class_decl 12 0 1892]),
     (16345, [Entry 1 True, REDUCE sym_class_decl 12 0 2274]),
     (16347, [Entry 1 False, REDUCE sym_class_decl 12 0 2274]),
     (16349, [Entry 1 True, REDUCE sym_class_decl 12 0 1893]),
     (16351, [Entry 1 False, REDUCE sym_class_decl 12 0 1893]),
     (16353, [Entry 1 True, REDUCE sym_class_decl 12 0 1894]),
     (16355, [Entry 1 False, REDUCE sym_class_decl 12 0 1894]),
     (16357, [Entry 1 True, REDUCE sym_class_decl 12 0 1895]),
     (16359, [Entry 1 False, REDUCE sym_class_decl 12 0 1895]),
     (16361, [Entry 1 True, REDUCE sym_class_decl 12 0 2275]),
     (16363, [Entry 1 False, REDUCE sym_class_decl 12 0 2275]),
     (16365, [Entry 1 True, REDUCE sym_class_decl 12 0 1896]),
     (16367, [Entry 1 False, REDUCE sym_class_decl 12 0 1896]),
     (16369, [Entry 1 True, REDUCE sym_class_decl 12 0 1897]),
     (16371, [Entry 1 False, REDUCE sym_class_decl 12 0 1897]),
     (16373, [Entry 1 True, REDUCE sym_class_decl 12 0 1898]),
     (16375, [Entry 1 False, REDUCE sym_class_decl 12 0 1898]),
     (16377, [Entry 1 True, REDUCE sym_class_decl 12 0 1899]),
     (16379, [Entry 1 False, REDUCE sym_class_decl 12 0 1899]),
     (16381, [Entry 1 True, REDUCE sym_class_decl 12 0 1843]),
     (16383, [Entry 1 False, REDUCE sym_class_decl 12 0 1843]),
     (16385, [Entry 1 True, REDUCE sym_class_decl 12 0 2276]),
     (16387, [Entry 1 False, REDUCE sym_class_decl 12 0 2276]),
     (16389, [Entry 1 True, REDUCE sym_class_decl 12 0 1900]),
     (16391, [Entry 1 False, REDUCE sym_class_decl 12 0 1900]),
     (16393, [Entry 1 True, REDUCE sym_class_decl 12 0 1901]),
     (16395, [Entry 1 False, REDUCE sym_class_decl 12 0 1901]),
     (16397, [Entry 1 True, REDUCE sym_class_decl 12 0 1902]),
     (16399, [Entry 1 False, REDUCE sym_class_decl 12 0 1902]),
     (16401, [Entry 1 True, REDUCE sym_class_decl 12 0 1903]),
     (16403, [Entry 1 False, REDUCE sym_class_decl 12 0 1903]),
     (16405, [Entry 1 True, REDUCE sym_class_decl 12 0 2277]),
     (16407, [Entry 1 False, REDUCE sym_class_decl 12 0 2277]),
     (16409, [Entry 1 True, REDUCE sym_class_decl 12 0 1904]),
     (16411, [Entry 1 False, REDUCE sym_class_decl 12 0 1904]),
     (16413, [Entry 1 True, REDUCE sym_class_decl 12 0 1905]),
     (16415, [Entry 1 False, REDUCE sym_class_decl 12 0 1905]),
     (16417, [Entry 1 True, REDUCE sym_class_decl 12 0 1906])]"

lemma ts_parse_actions_54_tiled: "tiled_from 16119 ts_parse_actions_54 \<and> after_runs 16119 ts_parse_actions_54 = 16419"
  unfolding ts_parse_actions_54_def by (simp cong: runs_weak)

lemma ts_parse_actions_54_ok: "list_all (\<lambda>(i, es). group_ok es) ts_parse_actions_54"
  unfolding ts_parse_actions_54_def
  by (simp add: group_ok_simps entry_action_ok_simps del: One_nat_def group_ok.simps cong: list_all_weak)

text \<open>Lines 488821 to 488970.\<close>

definition ts_parse_actions_55 :: "(nat \<times> TSParseActionEntry list) list" where
  "ts_parse_actions_55 =
    [(16419, [Entry 1 False, REDUCE sym_class_decl 12 0 1906]),
     (16421, [Entry 1 True, REDUCE sym_class_decl 12 0 2278]),
     (16423, [Entry 1 False, REDUCE sym_class_decl 12 0 2278]),
     (16425, [Entry 1 True, REDUCE sym_class_decl 12 0 1907]),
     (16427, [Entry 1 False, REDUCE sym_class_decl 12 0 1907]),
     (16429, [Entry 1 True, REDUCE sym_class_decl 12 0 1908]),
     (16431, [Entry 1 False, REDUCE sym_class_decl 12 0 1908]),
     (16433, [Entry 1 True, REDUCE sym_class_decl 12 0 2279]),
     (16435, [Entry 1 False, REDUCE sym_class_decl 12 0 2279]),
     (16437, [Entry 1 True, REDUCE sym_class_decl 12 0 1473]),
     (16439, [Entry 1 False, REDUCE sym_class_decl 12 0 1473]),
     (16441, [Entry 1 True, REDUCE sym_class_decl 12 0 2280]),
     (16443, [Entry 1 False, REDUCE sym_class_decl 12 0 2280]),
     (16445, [Entry 1 True, REDUCE sym_class_decl 9 0 1022]),
     (16447, [Entry 1 False, REDUCE sym_class_decl 9 0 1022]),
     (16449, [Entry 1 True, REDUCE sym_class_decl 12 0 2281]),
     (16451, [Entry 1 False, REDUCE sym_class_decl 12 0 2281]),
     (16453, [Entry 1 True, REDUCE sym_class_decl 12 0 1909]),
     (16455, [Entry 1 False, REDUCE sym_class_decl 12 0 1909]),
     (16457, [Entry 1 True, REDUCE sym_class_decl 12 0 1910]),
     (16459, [Entry 1 False, REDUCE sym_class_decl 12 0 1910]),
     (16461, [Entry 1 True, REDUCE sym_class_decl 12 0 1911]),
     (16463, [Entry 1 False, REDUCE sym_class_decl 12 0 1911]),
     (16465, [Entry 1 True, REDUCE sym_fb_decl 12 0 2282]),
     (16467, [Entry 1 False, REDUCE sym_fb_decl 12 0 2282]),
     (16469, [Entry 1 True, REDUCE sym_fb_decl 6 0 164]),
     (16471, [Entry 1 False, REDUCE sym_fb_decl 6 0 164]),
     (16473, [Entry 1 True, REDUCE sym_fb_decl 12 0 2284]),
     (16475, [Entry 1 False, REDUCE sym_fb_decl 12 0 2284]),
     (16477, [Entry 1 True, REDUCE sym_fb_decl 12 0 1920]),
     (16479, [Entry 1 False, REDUCE sym_fb_decl 12 0 1920]),
     (16481, [Entry 1 True, REDUCE sym_fb_decl 12 0 2285]),
     (16483, [Entry 1 False, REDUCE sym_fb_decl 12 0 2285]),
     (16485, [Entry 1 True, REDUCE sym_fb_decl 12 0 2286]),
     (16487, [Entry 1 False, REDUCE sym_fb_decl 12 0 2286]),
     (16489, [Entry 1 True, REDUCE sym_fb_decl 12 0 2287]),
     (16491, [Entry 1 False, REDUCE sym_fb_decl 12 0 2287]),
     (16493, [Entry 1 True, REDUCE sym_fb_decl 12 0 1925]),
     (16495, [Entry 1 False, REDUCE sym_fb_decl 12 0 1925]),
     (16497, [Entry 1 True, REDUCE sym_fb_decl 12 0 2288]),
     (16499, [Entry 1 False, REDUCE sym_fb_decl 12 0 2288]),
     (16501, [Entry 1 True, REDUCE sym_fb_decl 12 0 2289]),
     (16503, [Entry 1 False, REDUCE sym_fb_decl 12 0 2289]),
     (16505, [Entry 1 True, REDUCE sym_fb_decl 12 0 1927]),
     (16507, [Entry 1 False, REDUCE sym_fb_decl 12 0 1927]),
     (16509, [Entry 1 True, REDUCE sym_fb_decl 12 0 2290]),
     (16511, [Entry 1 False, REDUCE sym_fb_decl 12 0 2290]),
     (16513, [Entry 1 True, REDUCE sym_fb_decl 12 0 2291]),
     (16515, [Entry 1 False, REDUCE sym_fb_decl 12 0 2291]),
     (16517, [Entry 1 True, REDUCE sym_class_decl 8 0 613]),
     (16519, [Entry 1 False, REDUCE sym_class_decl 8 0 613]),
     (16521, [Entry 1 True, REDUCE sym_fb_decl 12 0 1928]),
     (16523, [Entry 1 False, REDUCE sym_fb_decl 12 0 1928]),
     (16525, [Entry 1 True, REDUCE sym_fb_decl 12 0 2292]),
     (16527, [Entry 1 False, REDUCE sym_fb_decl 12 0 2292]),
     (16529, [Entry 1 True, REDUCE sym_fb_decl 12 0 2293]),
     (16531, [Entry 1 False, REDUCE sym_fb_decl 12 0 2293]),
     (16533, [Entry 1 True, REDUCE sym_fb_decl 12 0 1929]),
     (16535, [Entry 1 False, REDUCE sym_fb_decl 12 0 1929]),
     (16537, [Entry 1 True, REDUCE sym_fb_decl 12 0 2294]),
     (16539, [Entry 1 False, REDUCE sym_fb_decl 12 0 2294]),
     (16541, [Entry 1 True, REDUCE sym_fb_decl 12 0 2295]),
     (16543, [Entry 1 False, REDUCE sym_fb_decl 12 0 2295]),
     (16545, [Entry 1 True, REDUCE sym_class_decl 9 0 643]),
     (16547, [Entry 1 False, REDUCE sym_class_decl 9 0 643]),
     (16549, [Entry 1 True, REDUCE sym_fb_decl 12 0 1930]),
     (16551, [Entry 1 False, REDUCE sym_fb_decl 12 0 1930]),
     (16553, [Entry 1 True, REDUCE sym_fb_decl 12 0 2296]),
     (16555, [Entry 1 False, REDUCE sym_fb_decl 12 0 2296]),
     (16557, [Entry 1 True, REDUCE sym_fb_decl 12 0 2297]),
     (16559, [Entry 1 False, REDUCE sym_fb_decl 12 0 2297]),
     (16561, [Entry 1 True, REDUCE sym_class_decl 8 0 614]),
     (16563, [Entry 1 False, REDUCE sym_class_decl 8 0 614]),
     (16565, [Entry 1 True, REDUCE sym_class_decl 8 0 353]),
     (16567, [Entry 1 False, REDUCE sym_class_decl 8 0 353]),
     (16569, [Entry 1 True, REDUCE sym_fb_decl 12 0 2298]),
     (16571, [Entry 1 False, REDUCE sym_fb_decl 12 0 2298]),
     (16573, [Entry 1 True, REDUCE sym_class_decl 8 0 615]),
     (16575, [Entry 1 False, REDUCE sym_class_decl 8 0 615]),
     (16577, [Entry 1 True, REDUCE sym_fb_decl 12 0 1931]),
     (16579, [Entry 1 False, REDUCE sym_fb_decl 12 0 1931]),
     (16581, [Entry 1 True, REDUCE sym_fb_decl 12 0 2299]),
     (16583, [Entry 1 False, REDUCE sym_fb_decl 12 0 2299]),
     (16585, [Entry 1 True, REDUCE sym_fb_decl 12 0 2300]),
     (16587, [Entry 1 False, REDUCE sym_fb_decl 12 0 2300]),
     (16589, [Entry 1 True, REDUCE sym_fb_decl 12 0 2301]),
     (16591, [Entry 1 False, REDUCE sym_fb_decl 12 0 2301]),
     (16593, [Entry 1 True, REDUCE sym_fb_decl 12 0 2302]),
     (16595, [Entry 1 False, REDUCE sym_fb_decl 12 0 2302]),
     (16597, [Entry 1 True, REDUCE sym_fb_decl 12 0 1938]),
     (16599, [Entry 1 False, REDUCE sym_fb_decl 12 0 1938]),
     (16601, [Entry 1 True, REDUCE sym_fb_decl 12 0 2303]),
     (16603, [Entry 1 False, REDUCE sym_fb_decl 12 0 2303]),
     (16605, [Entry 1 True, REDUCE sym_fb_decl 12 0 2304]),
     (16607, [Entry 1 False, REDUCE sym_fb_decl 12 0 2304]),
     (16609, [Entry 1 True, REDUCE sym_class_decl 9 0 594]),
     (16611, [Entry 1 False, REDUCE sym_class_decl 9 0 594]),
     (16613, [Entry 1 True, REDUCE sym_fb_decl 12 0 1939]),
     (16615, [Entry 1 False, REDUCE sym_fb_decl 12 0 1939]),
     (16617, [Entry 1 True, REDUCE sym_fb_decl 12 0 2305]),
     (16619, [Entry 1 False, REDUCE sym_fb_decl 12 0 2305]),
     (16621, [Entry 1 True, REDUCE sym_fb_decl 12 0 2306]),
     (16623, [Entry 1 False, REDUCE sym_fb_decl 12 0 2306]),
     (16625, [Entry 1 True, REDUCE sym_interface_decl 5 0 89]),
     (16627, [Entry 1 False, REDUCE sym_interface_decl 5 0 89]),
     (16629, [Entry 1 True, REDUCE sym_class_decl 9 0 1023]),
     (16631, [Entry 1 False, REDUCE sym_class_decl 9 0 1023]),
     (16633, [Entry 1 True, REDUCE sym_fb_decl 12 0 2307]),
     (16635, [Entry 1 False, REDUCE sym_fb_decl 12 0 2307]),
     (16637, [Entry 1 True, REDUCE sym_class_decl 8 0 354]),
     (16639, [Entry 1 False, REDUCE sym_class_decl 8 0 354]),
     (16641, [Entry 1 True, REDUCE sym_fb_decl 12 0 1507]),
     (16643, [Entry 1 False, REDUCE sym_fb_decl 12 0 1507]),
     (16645, [Entry 1 True, REDUCE sym_fb_decl 12 0 2308]),
     (16647, [Entry 1 False, REDUCE sym_fb_decl 12 0 2308]),
     (16649, [Entry 1 True, REDUCE sym_class_decl 8 0 616]),
     (16651, [Entry 1 False, REDUCE sym_class_decl 8 0 616]),
     (16653, [Entry 1 True, REDUCE sym_prog_decl 5 0 90]),
     (16655, [Entry 1 False, REDUCE sym_prog_decl 5 0 90]),
     (16657, [Entry 1 True, REDUCE sym_fb_decl 12 0 2309]),
     (16659, [Entry 1 False, REDUCE sym_fb_decl 12 0 2309]),
     (16661, [Entry 1 True, REDUCE sym_class_decl 8 0 194]),
     (16663, [Entry 1 False, REDUCE sym_class_decl 8 0 194]),
     (16665, [Entry 1 True, REDUCE sym_class_decl 8 0 617]),
     (16667, [Entry 1 False, REDUCE sym_class_decl 8 0 617]),
     (16669, [Entry 1 True, REDUCE sym_class_decl 9 0 336]),
     (16671, [Entry 1 False, REDUCE sym_class_decl 9 0 336]),
     (16673, [Entry 1 True, REDUCE sym_fb_decl 12 0 2310]),
     (16675, [Entry 1 False, REDUCE sym_fb_decl 12 0 2310]),
     (16677, [Entry 1 True, REDUCE sym_class_decl 9 0 968]),
     (16679, [Entry 1 False, REDUCE sym_class_decl 9 0 968]),
     (16681, [Entry 1 True, REDUCE sym_fb_decl 12 0 1940]),
     (16683, [Entry 1 False, REDUCE sym_fb_decl 12 0 1940]),
     (16685, [Entry 1 True, REDUCE sym_fb_decl 12 0 2311]),
     (16687, [Entry 1 False, REDUCE sym_fb_decl 12 0 2311]),
     (16689, [Entry 1 True, REDUCE sym_fb_decl 12 0 2312]),
     (16691, [Entry 1 False, REDUCE sym_fb_decl 12 0 2312]),
     (16693, [Entry 1 True, REDUCE sym_fb_decl 12 0 2313]),
     (16695, [Entry 1 False, REDUCE sym_fb_decl 12 0 2313]),
     (16697, [Entry 1 True, REDUCE sym_fb_decl 12 0 1945]),
     (16699, [Entry 1 False, REDUCE sym_fb_decl 12 0 1945]),
     (16701, [Entry 1 True, REDUCE sym_fb_decl 12 0 2314]),
     (16703, [Entry 1 False, REDUCE sym_fb_decl 12 0 2314]),
     (16705, [Entry 1 True, REDUCE sym_fb_decl 12 0 2315]),
     (16707, [Entry 1 False, REDUCE sym_fb_decl 12 0 2315]),
     (16709, [Entry 1 True, REDUCE sym_fb_decl 12 0 2316]),
     (16711, [Entry 1 False, REDUCE sym_fb_decl 12 0 2316]),
     (16713, [Entry 1 True, REDUCE sym_fb_decl 12 0 1949]),
     (16715, [Entry 1 False, REDUCE sym_fb_decl 12 0 1949]),
     (16717, [Entry 1 True, REDUCE sym_fb_decl 12 0 2317])]"

lemma ts_parse_actions_55_tiled: "tiled_from 16419 ts_parse_actions_55 \<and> after_runs 16419 ts_parse_actions_55 = 16719"
  unfolding ts_parse_actions_55_def by (simp cong: runs_weak)

lemma ts_parse_actions_55_ok: "list_all (\<lambda>(i, es). group_ok es) ts_parse_actions_55"
  unfolding ts_parse_actions_55_def
  by (simp add: group_ok_simps entry_action_ok_simps del: One_nat_def group_ok.simps cong: list_all_weak)

text \<open>Lines 488971 to 489120.\<close>

definition ts_parse_actions_56 :: "(nat \<times> TSParseActionEntry list) list" where
  "ts_parse_actions_56 =
    [(16719, [Entry 1 False, REDUCE sym_fb_decl 12 0 2317]),
     (16721, [Entry 1 True, REDUCE sym_fb_decl 12 0 2318]),
     (16723, [Entry 1 False, REDUCE sym_fb_decl 12 0 2318]),
     (16725, [Entry 1 True, REDUCE sym_fb_decl 12 0 1951]),
     (16727, [Entry 1 False, REDUCE sym_fb_decl 12 0 1951]),
     (16729, [Entry 1 True, REDUCE sym_fb_decl 12 0 2319]),
     (16731, [Entry 1 False, REDUCE sym_fb_decl 12 0 2319]),
     (16733, [Entry 1 True, REDUCE sym_fb_decl 12 0 2320]),
     (16735, [Entry 1 False, REDUCE sym_fb_decl 12 0 2320]),
     (16737, [Entry 1 True, REDUCE sym_fb_decl 9 0 560]),
     (16739, [Entry 1 False, REDUCE sym_fb_decl 9 0 560]),
     (16741, [Entry 1 True, REDUCE sym_fb_decl 12 0 1952]),
     (16743, [Entry 1 False, REDUCE sym_fb_decl 12 0 1952]),
     (16745, [Entry 1 True, REDUCE sym_fb_decl 12 0 2321]),
     (16747, [Entry 1 False, REDUCE sym_fb_decl 12 0 2321]),
     (16749, [Entry 1 True, REDUCE sym_fb_decl 12 0 2322]),
     (16751, [Entry 1 False, REDUCE sym_fb_decl 12 0 2322]),
     (16753, [Entry 1 True, REDUCE sym_fb_decl 12 0 2323]),
     (16755, [Entry 1 False, REDUCE sym_fb_decl 12 0 2323]),
     (16757, [Entry 1 True, REDUCE sym_fb_decl 12 0 2324]),
     (16759, [Entry 1 False, REDUCE sym_fb_decl 12 0 2324]),
     (16761, [Entry 1 True, REDUCE sym_fb_decl 12 0 1959]),
     (16763, [Entry 1 False, REDUCE sym_fb_decl 12 0 1959]),
     (16765, [Entry 1 True, REDUCE sym_fb_decl 12 0 2325]),
     (16767, [Entry 1 False, REDUCE sym_fb_decl 12 0 2325]),
     (16769, [Entry 1 True, REDUCE sym_fb_decl 12 0 2326]),
     (16771, [Entry 1 False, REDUCE sym_fb_decl 12 0 2326]),
     (16773, [Entry 1 True, REDUCE sym_fb_decl 12 0 2327]),
     (16775, [Entry 1 False, REDUCE sym_fb_decl 12 0 2327]),
     (16777, [Entry 1 True, REDUCE sym_fb_decl 12 0 1963]),
     (16779, [Entry 1 False, REDUCE sym_fb_decl 12 0 1963]),
     (16781, [Entry 1 True, REDUCE sym_fb_decl 12 0 2328]),
     (16783, [Entry 1 False, REDUCE sym_fb_decl 12 0 2328]),
     (16785, [Entry 1 True, REDUCE sym_fb_decl 12 0 2329]),
     (16787, [Entry 1 False, REDUCE sym_fb_decl 12 0 2329]),
     (16789, [Entry 1 True, REDUCE sym_fb_decl 12 0 1965]),
     (16791, [Entry 1 False, REDUCE sym_fb_decl 12 0 1965]),
     (16793, [Entry 1 True, REDUCE sym_fb_decl 12 0 2330]),
     (16795, [Entry 1 False, REDUCE sym_fb_decl 12 0 2330]),
     (16797, [Entry 1 True, REDUCE sym_fb_decl 12 0 2331]),
     (16799, [Entry 1 False, REDUCE sym_fb_decl 12 0 2331]),
     (16801, [Entry 1 True, REDUCE sym_class_decl 8 0 618]),
     (16803, [Entry 1 False, REDUCE sym_class_decl 8 0 618]),
     (16805, [Entry 1 True, REDUCE sym_fb_decl 12 0 1966]),
     (16807, [Entry 1 False, REDUCE sym_fb_decl 12 0 1966]),
     (16809, [Entry 1 True, REDUCE sym_fb_decl 12 0 2332]),
     (16811, [Entry 1 False, REDUCE sym_fb_decl 12 0 2332]),
     (16813, [Entry 1 True, REDUCE sym_fb_decl 12 0 2333]),
     (16815, [Entry 1 False, REDUCE sym_fb_decl 12 0 2333]),
     (16817, [Entry 1 True, REDUCE sym_fb_decl 12 0 2334]),
     (16819, [Entry 1 False, REDUCE sym_fb_decl 12 0 2334]),
     (16821, [Entry 1 True, REDUCE sym_fb_decl 12 0 1970]),
     (16823, [Entry 1 False, REDUCE sym_fb_decl 12 0 1970]),
     (16825, [Entry 1 True, REDUCE sym_fb_decl 12 0 2335]),
     (16827, [Entry 1 False, REDUCE sym_fb_decl 12 0 2335]),
     (16829, [Entry 1 True, REDUCE sym_fb_decl 12 0 2336]),
     (16831, [Entry 1 False, REDUCE sym_fb_decl 12 0 2336]),
     (16833, [Entry 1 True, REDUCE sym_class_decl 8 0 355]),
     (16835, [Entry 1 False, REDUCE sym_class_decl 8 0 355]),
     (16837, [Entry 1 True, REDUCE sym_fb_decl 12 0 1971]),
     (16839, [Entry 1 False, REDUCE sym_fb_decl 12 0 1971]),
     (16841, [Entry 1 True, REDUCE sym_fb_decl 12 0 2337]),
     (16843, [Entry 1 False, REDUCE sym_fb_decl 12 0 2337]),
     (16845, [Entry 1 True, REDUCE sym_fb_decl 12 0 2338]),
     (16847, [Entry 1 False, REDUCE sym_fb_decl 12 0 2338]),
     (16849, [Entry 1 True, REDUCE sym_class_decl 8 0 356]),
     (16851, [Entry 1 False, REDUCE sym_class_decl 8 0 356]),
     (16853, [Entry 1 True, REDUCE sym_class_decl 8 0 619]),
     (16855, [Entry 1 False, REDUCE sym_class_decl 8 0 619]),
     (16857, [Entry 1 True, REDUCE sym_fb_decl 12 0 2339]),
     (16859, [Entry 1 False, REDUCE sym_fb_decl 12 0 2339]),
     (16861, [Entry 1 True, REDUCE sym_class_decl 9 0 1024]),
     (16863, [Entry 1 False, REDUCE sym_class_decl 9 0 1024]),
     (16865, [Entry 1 True, REDUCE sym_fb_decl 12 0 1529]),
     (16867, [Entry 1 False, REDUCE sym_fb_decl 12 0 1529]),
     (16869, [Entry 1 True, REDUCE sym_fb_decl 12 0 2340]),
     (16871, [Entry 1 False, REDUCE sym_fb_decl 12 0 2340]),
     (16873, [Entry 1 True, REDUCE sym_class_decl 9 0 644]),
     (16875, [Entry 1 False, REDUCE sym_class_decl 9 0 644]),
     (16877, [Entry 1 True, REDUCE sym_class_decl 9 0 645]),
     (16879, [Entry 1 False, REDUCE sym_class_decl 9 0 645]),
     (16881, [Entry 1 True, REDUCE sym_fb_decl 12 0 2341]),
     (16883, [Entry 1 False, REDUCE sym_fb_decl 12 0 2341]),
     (16885, [Entry 1 True, REDUCE sym_class_decl 8 0 620]),
     (16887, [Entry 1 False, REDUCE sym_class_decl 8 0 620]),
     (16889, [Entry 1 True, REDUCE sym_fb_decl 6 0 232]),
     (16891, [Entry 1 False, REDUCE sym_fb_decl 6 0 232]),
     (16893, [Entry 1 True, REDUCE sym_class_decl 8 0 357]),
     (16895, [Entry 1 False, REDUCE sym_class_decl 8 0 357]),
     (16897, [Entry 1 True, REDUCE sym_fb_decl 12 0 2342]),
     (16899, [Entry 1 False, REDUCE sym_fb_decl 12 0 2342]),
     (16901, [Entry 1 True, REDUCE sym_class_decl 8 0 621]),
     (16903, [Entry 1 False, REDUCE sym_class_decl 8 0 621]),
     (16905, [Entry 1 True, REDUCE sym_fb_decl 12 0 1972]),
     (16907, [Entry 1 False, REDUCE sym_fb_decl 12 0 1972]),
     (16909, [Entry 1 True, REDUCE sym_fb_decl 12 0 2343]),
     (16911, [Entry 1 False, REDUCE sym_fb_decl 12 0 2343]),
     (16913, [Entry 1 True, REDUCE sym_fb_decl 12 0 2344]),
     (16915, [Entry 1 False, REDUCE sym_fb_decl 12 0 2344]),
     (16917, [Entry 1 True, REDUCE sym_fb_decl 12 0 2345]),
     (16919, [Entry 1 False, REDUCE sym_fb_decl 12 0 2345]),
     (16921, [Entry 1 True, REDUCE sym_fb_decl 12 0 1977]),
     (16923, [Entry 1 False, REDUCE sym_fb_decl 12 0 1977]),
     (16925, [Entry 1 True, REDUCE sym_fb_decl 12 0 2346]),
     (16927, [Entry 1 False, REDUCE sym_fb_decl 12 0 2346]),
     (16929, [Entry 1 True, REDUCE sym_fb_decl 12 0 2347]),
     (16931, [Entry 1 False, REDUCE sym_fb_decl 12 0 2347]),
     (16933, [Entry 1 True, REDUCE sym_fb_decl 12 0 1979]),
     (16935, [Entry 1 False, REDUCE sym_fb_decl 12 0 1979]),
     (16937, [Entry 1 True, REDUCE sym_fb_decl 12 0 2348]),
     (16939, [Entry 1 False, REDUCE sym_fb_decl 12 0 2348]),
     (16941, [Entry 1 True, REDUCE sym_fb_decl 12 0 2349]),
     (16943, [Entry 1 False, REDUCE sym_fb_decl 12 0 2349]),
     (16945, [Entry 1 True, REDUCE sym_class_decl 9 0 646]),
     (16947, [Entry 1 False, REDUCE sym_class_decl 9 0 646]),
     (16949, [Entry 1 True, REDUCE sym_class_decl 9 0 647]),
     (16951, [Entry 1 False, REDUCE sym_class_decl 9 0 647]),
     (16953, [Entry 1 True, REDUCE sym_fb_decl 12 0 2350]),
     (16955, [Entry 1 False, REDUCE sym_fb_decl 12 0 2350]),
     (16957, [Entry 1 True, REDUCE sym_namespace_decl 5 0 92]),
     (16959, [Entry 1 False, REDUCE sym_namespace_decl 5 0 92]),
     (16961, [Entry 1 True, REDUCE sym_class_decl 9 0 1025]),
     (16963, [Entry 1 False, REDUCE sym_class_decl 9 0 1025]),
     (16965, [Entry 1 True, REDUCE sym_class_decl 8 0 622]),
     (16967, [Entry 1 False, REDUCE sym_class_decl 8 0 622]),
     (16969, [Entry 1 True, REDUCE sym_class_decl 8 0 358]),
     (16971, [Entry 1 False, REDUCE sym_class_decl 8 0 358]),
     (16973, [Entry 1 True, REDUCE sym_class_decl 8 0 623]),
     (16975, [Entry 1 False, REDUCE sym_class_decl 8 0 623]),
     (16977, [Entry 1 True, REDUCE sym_class_decl 9 0 648]),
     (16979, [Entry 1 False, REDUCE sym_class_decl 9 0 648]),
     (16981, [Entry 1 True, REDUCE sym_fb_decl 6 0 100]),
     (16983, [Entry 1 False, REDUCE sym_fb_decl 6 0 100]),
     (16985, [Entry 1 True, REDUCE sym_fb_decl 12 0 2351]),
     (16987, [Entry 1 False, REDUCE sym_fb_decl 12 0 2351]),
     (16989, [Entry 1 True, REDUCE sym_class_decl 9 0 649]),
     (16991, [Entry 1 False, REDUCE sym_class_decl 9 0 649]),
     (16993, [Entry 1 True, REDUCE sym_fb_decl 12 0 2352]),
     (16995, [Entry 1 False, REDUCE sym_fb_decl 12 0 2352]),
     (16997, [Entry 1 True, REDUCE sym_fb_decl 12 0 1982]),
     (16999, [Entry 1 False, REDUCE sym_fb_decl 12 0 1982]),
     (17001, [Entry 1 True, REDUCE sym_fb_decl 12 0 2353]),
     (17003, [Entry 1 False, REDUCE sym_fb_decl 12 0 2353]),
     (17005, [Entry 1 True, REDUCE sym_fb_decl 12 0 2354]),
     (17007, [Entry 1 False, REDUCE sym_fb_decl 12 0 2354]),
     (17009, [Entry 1 True, REDUCE sym_fb_decl 12 0 1984]),
     (17011, [Entry 1 False, REDUCE sym_fb_decl 12 0 1984]),
     (17013, [Entry 1 True, REDUCE sym_fb_decl 12 0 2355]),
     (17015, [Entry 1 False, REDUCE sym_fb_decl 12 0 2355]),
     (17017, [Entry 1 True, REDUCE sym_fb_decl 12 0 2356])]"

lemma ts_parse_actions_56_tiled: "tiled_from 16719 ts_parse_actions_56 \<and> after_runs 16719 ts_parse_actions_56 = 17019"
  unfolding ts_parse_actions_56_def by (simp cong: runs_weak)

lemma ts_parse_actions_56_ok: "list_all (\<lambda>(i, es). group_ok es) ts_parse_actions_56"
  unfolding ts_parse_actions_56_def
  by (simp add: group_ok_simps entry_action_ok_simps del: One_nat_def group_ok.simps cong: list_all_weak)

text \<open>Lines 489121 to 489270.\<close>

definition ts_parse_actions_57 :: "(nat \<times> TSParseActionEntry list) list" where
  "ts_parse_actions_57 =
    [(17019, [Entry 1 False, REDUCE sym_fb_decl 12 0 2356]),
     (17021, [Entry 1 True, REDUCE sym_class_decl 8 0 359]),
     (17023, [Entry 1 False, REDUCE sym_class_decl 8 0 359]),
     (17025, [Entry 1 True, REDUCE sym_fb_decl 12 0 1985]),
     (17027, [Entry 1 False, REDUCE sym_fb_decl 12 0 1985]),
     (17029, [Entry 1 True, REDUCE sym_fb_decl 12 0 2357]),
     (17031, [Entry 1 False, REDUCE sym_fb_decl 12 0 2357]),
     (17033, [Entry 1 True, REDUCE sym_fb_decl 12 0 2358]),
     (17035, [Entry 1 False, REDUCE sym_fb_decl 12 0 2358]),
     (17037, [Entry 1 True, REDUCE sym_fb_decl 12 0 1986]),
     (17039, [Entry 1 False, REDUCE sym_fb_decl 12 0 1986]),
     (17041, [Entry 1 True, REDUCE sym_fb_decl 12 0 2359]),
     (17043, [Entry 1 False, REDUCE sym_fb_decl 12 0 2359]),
     (17045, [Entry 1 True, REDUCE sym_fb_decl 12 0 2360]),
     (17047, [Entry 1 False, REDUCE sym_fb_decl 12 0 2360]),
     (17049, [Entry 1 True, REDUCE sym_class_decl 8 0 624]),
     (17051, [Entry 1 False, REDUCE sym_class_decl 8 0 624]),
     (17053, [Entry 1 True, REDUCE sym_fb_decl 12 0 1987]),
     (17055, [Entry 1 False, REDUCE sym_fb_decl 12 0 1987]),
     (17057, [Entry 1 True, REDUCE sym_fb_decl 12 0 2361]),
     (17059, [Entry 1 False, REDUCE sym_fb_decl 12 0 2361]),
     (17061, [Entry 1 True, REDUCE sym_fb_decl 12 0 2362]),
     (17063, [Entry 1 False, REDUCE sym_fb_decl 12 0 2362]),
     (17065, [Entry 1 True, REDUCE sym_class_decl 8 0 30]),
     (17067, [Entry 1 False, REDUCE sym_class_decl 8 0 30]),
     (17069, [Entry 1 True, REDUCE sym_class_decl 8 0 625]),
     (17071, [Entry 1 False, REDUCE sym_class_decl 8 0 625]),
     (17073, [Entry 1 True, REDUCE sym_fb_decl 12 0 2363]),
     (17075, [Entry 1 False, REDUCE sym_fb_decl 12 0 2363]),
     (17077, [Entry 1 True, REDUCE sym_class_decl 9 0 1026]),
     (17079, [Entry 1 False, REDUCE sym_class_decl 9 0 1026]),
     (17081, [Entry 1 True, REDUCE sym_fb_decl 12 0 1988]),
     (17083, [Entry 1 False, REDUCE sym_fb_decl 12 0 1988]),
     (17085, [Entry 1 True, REDUCE sym_fb_decl 12 0 2364]),
     (17087, [Entry 1 False, REDUCE sym_fb_decl 12 0 2364]),
     (17089, [Entry 1 True, REDUCE sym_fb_decl 12 0 2365]),
     (17091, [Entry 1 False, REDUCE sym_fb_decl 12 0 2365]),
     (17093, [Entry 1 True, REDUCE sym_fb_decl 12 0 2366]),
     (17095, [Entry 1 False, REDUCE sym_fb_decl 12 0 2366]),
     (17097, [Entry 1 True, REDUCE sym_fb_decl 12 0 1994]),
     (17099, [Entry 1 False, REDUCE sym_fb_decl 12 0 1994]),
     (17101, [Entry 1 True, REDUCE sym_fb_decl 12 0 2367]),
     (17103, [Entry 1 False, REDUCE sym_fb_decl 12 0 2367]),
     (17105, [Entry 1 True, REDUCE sym_fb_decl 12 0 2368]),
     (17107, [Entry 1 False, REDUCE sym_fb_decl 12 0 2368]),
     (17109, [Entry 1 True, REDUCE sym_fb_decl 12 0 1996]),
     (17111, [Entry 1 False, REDUCE sym_fb_decl 12 0 1996]),
     (17113, [Entry 1 True, REDUCE sym_fb_decl 12 0 2369]),
     (17115, [Entry 1 False, REDUCE sym_fb_decl 12 0 2369]),
     (17117, [Entry 1 True, REDUCE sym_fb_decl 12 0 2370]),
     (17119, [Entry 1 False, REDUCE sym_fb_decl 12 0 2370]),
     (17121, [Entry 1 True, REDUCE sym_class_decl 8 0 626]),
     (17123, [Entry 1 False, REDUCE sym_class_decl 8 0 626]),
     (17125, [Entry 1 True, REDUCE sym_fb_decl 12 0 1997]),
     (17127, [Entry 1 False, REDUCE sym_fb_decl 12 0 1997]),
     (17129, [Entry 1 True, REDUCE sym_fb_decl 12 0 2371]),
     (17131, [Entry 1 False, REDUCE sym_fb_decl 12 0 2371]),
     (17133, [Entry 1 True, REDUCE sym_fb_decl 12 0 2372]),
     (17135, [Entry 1 False, REDUCE sym_fb_decl 12 0 2372]),
     (17137, [Entry 1 True, REDUCE sym_fb_decl 12 0 1998]),
     (17139, [Entry 1 False, REDUCE sym_fb_decl 12 0 1998]),
     (17141, [Entry 1 True, REDUCE sym_fb_decl 12 0 2373]),
     (17143, [Entry 1 False, REDUCE sym_fb_decl 12 0 2373]),
     (17145, [Entry 1 True, REDUCE sym_fb_decl 12 0 2374]),
     (17147, [Entry 1 False, REDUCE sym_fb_decl 12 0 2374]),
     (17149, [Entry 1 True, REDUCE sym_class_decl 8 0 360]),
     (17151, [Entry 1 False, REDUCE sym_class_decl 8 0 360]),
     (17153, [Entry 1 True, REDUCE sym_fb_decl 12 0 1999]),
     (17155, [Entry 1 False, REDUCE sym_fb_decl 12 0 1999]),
     (17157, [Entry 1 True, REDUCE sym_fb_decl 12 0 2375]),
     (17159, [Entry 1 False, REDUCE sym_fb_decl 12 0 2375]),
     (17161, [Entry 1 True, REDUCE sym_fb_decl 12 0 2376]),
     (17163, [Entry 1 False, REDUCE sym_fb_decl 12 0 2376]),
     (17165, [Entry 1 True, REDUCE sym_class_decl 8 0 361]),
     (17167, [Entry 1 False, REDUCE sym_class_decl 8 0 361]),
     (17169, [Entry 1 True, REDUCE sym_class_decl 8 0 627]),
     (17171, [Entry 1 False, REDUCE sym_class_decl 8 0 627]),
     (17173, [Entry 1 True, REDUCE sym_fb_decl 12 0 2377]),
     (17175, [Entry 1 False, REDUCE sym_fb_decl 12 0 2377]),
     (17177, [Entry 1 True, REDUCE sym_fb_decl 9 0 912]),
     (17179, [Entry 1 False, REDUCE sym_fb_decl 9 0 912]),
     (17181, [Entry 1 True, REDUCE sym_fb_decl 12 0 2000]),
     (17183, [Entry 1 False, REDUCE sym_fb_decl 12 0 2000]),
     (17185, [Entry 1 True, REDUCE sym_fb_decl 12 0 2378]),
     (17187, [Entry 1 False, REDUCE sym_fb_decl 12 0 2378]),
     (17189, [Entry 1 True, REDUCE sym_fb_decl 12 0 2379]),
     (17191, [Entry 1 False, REDUCE sym_fb_decl 12 0 2379]),
     (17193, [Entry 1 True, REDUCE sym_fb_decl 12 0 2380]),
     (17195, [Entry 1 False, REDUCE sym_fb_decl 12 0 2380]),
     (17197, [Entry 1 True, REDUCE sym_fb_decl 12 0 2381]),
     (17199, [Entry 1 False, REDUCE sym_fb_decl 12 0 2381]),
     (17201, [Entry 1 True, REDUCE sym_fb_decl 12 0 2382]),
     (17203, [Entry 1 False, REDUCE sym_fb_decl 12 0 2382]),
     (17205, [Entry 1 True, REDUCE sym_fb_decl 12 0 2010]),
     (17207, [Entry 1 False, REDUCE sym_fb_decl 12 0 2010]),
     (17209, [Entry 1 True, REDUCE sym_fb_decl 12 0 2383]),
     (17211, [Entry 1 False, REDUCE sym_fb_decl 12 0 2383]),
     (17213, [Entry 1 True, REDUCE sym_fb_decl 12 0 2384]),
     (17215, [Entry 1 False, REDUCE sym_fb_decl 12 0 2384]),
     (17217, [Entry 1 True, REDUCE sym_fb_decl 12 0 2385]),
     (17219, [Entry 1 False, REDUCE sym_fb_decl 12 0 2385]),
     (17221, [Entry 1 True, REDUCE sym_fb_decl 12 0 2386]),
     (17223, [Entry 1 False, REDUCE sym_fb_decl 12 0 2386]),
     (17225, [Entry 1 True, REDUCE sym_fb_decl 12 0 2387]),
     (17227, [Entry 1 False, REDUCE sym_fb_decl 12 0 2387]),
     (17229, [Entry 1 True, REDUCE sym_fb_decl 12 0 2022]),
     (17231, [Entry 1 False, REDUCE sym_fb_decl 12 0 2022]),
     (17233, [Entry 1 True, REDUCE sym_fb_decl 12 0 2388]),
     (17235, [Entry 1 False, REDUCE sym_fb_decl 12 0 2388]),
     (17237, [Entry 1 True, REDUCE sym_fb_decl 12 0 2389]),
     (17239, [Entry 1 False, REDUCE sym_fb_decl 12 0 2389]),
     (17241, [Entry 1 True, REDUCE sym_fb_decl 12 0 2390]),
     (17243, [Entry 1 False, REDUCE sym_fb_decl 12 0 2390]),
     (17245, [Entry 1 True, REDUCE sym_fb_decl 12 0 2026]),
     (17247, [Entry 1 False, REDUCE sym_fb_decl 12 0 2026]),
     (17249, [Entry 1 True, REDUCE sym_fb_decl 12 0 2391]),
     (17251, [Entry 1 False, REDUCE sym_fb_decl 12 0 2391]),
     (17253, [Entry 1 True, REDUCE sym_fb_decl 12 0 2392]),
     (17255, [Entry 1 False, REDUCE sym_fb_decl 12 0 2392]),
     (17257, [Entry 1 True, REDUCE sym_fb_decl 12 0 2028]),
     (17259, [Entry 1 False, REDUCE sym_fb_decl 12 0 2028]),
     (17261, [Entry 1 True, REDUCE sym_fb_decl 12 0 2393]),
     (17263, [Entry 1 False, REDUCE sym_fb_decl 12 0 2393]),
     (17265, [Entry 1 True, REDUCE sym_fb_decl 12 0 2394]),
     (17267, [Entry 1 False, REDUCE sym_fb_decl 12 0 2394]),
     (17269, [Entry 1 True, REDUCE sym_fb_decl 9 0 913]),
     (17271, [Entry 1 False, REDUCE sym_fb_decl 9 0 913]),
     (17273, [Entry 1 True, REDUCE sym_fb_decl 12 0 2029]),
     (17275, [Entry 1 False, REDUCE sym_fb_decl 12 0 2029]),
     (17277, [Entry 1 True, REDUCE sym_fb_decl 12 0 2395]),
     (17279, [Entry 1 False, REDUCE sym_fb_decl 12 0 2395]),
     (17281, [Entry 1 True, REDUCE sym_fb_decl 12 0 2396]),
     (17283, [Entry 1 False, REDUCE sym_fb_decl 12 0 2396]),
     (17285, [Entry 1 True, REDUCE sym_fb_decl 12 0 2397]),
     (17287, [Entry 1 False, REDUCE sym_fb_decl 12 0 2397]),
     (17289, [Entry 1 True, REDUCE sym_fb_decl 12 0 2035]),
     (17291, [Entry 1 False, REDUCE sym_fb_decl 12 0 2035]),
     (17293, [Entry 1 True, REDUCE sym_fb_decl 12 0 2398]),
     (17295, [Entry 1 False, REDUCE sym_fb_decl 12 0 2398]),
     (17297, [Entry 1 True, REDUCE sym_fb_decl 12 0 2399]),
     (17299, [Entry 1 False, REDUCE sym_fb_decl 12 0 2399]),
     (17301, [Entry 1 True, REDUCE sym_fb_decl 12 0 2037]),
     (17303, [Entry 1 False, REDUCE sym_fb_decl 12 0 2037]),
     (17305, [Entry 1 True, REDUCE sym_fb_decl 12 0 2400]),
     (17307, [Entry 1 False, REDUCE sym_fb_decl 12 0 2400]),
     (17309, [Entry 1 True, REDUCE sym_fb_decl 12 0 2401]),
     (17311, [Entry 1 False, REDUCE sym_fb_decl 12 0 2401]),
     (17313, [Entry 1 True, REDUCE sym_fb_decl 9 0 886]),
     (17315, [Entry 1 False, REDUCE sym_fb_decl 9 0 886]),
     (17317, [Entry 1 True, REDUCE sym_fb_decl 12 0 2038])]"

lemma ts_parse_actions_57_tiled: "tiled_from 17019 ts_parse_actions_57 \<and> after_runs 17019 ts_parse_actions_57 = 17319"
  unfolding ts_parse_actions_57_def by (simp cong: runs_weak)

lemma ts_parse_actions_57_ok: "list_all (\<lambda>(i, es). group_ok es) ts_parse_actions_57"
  unfolding ts_parse_actions_57_def
  by (simp add: group_ok_simps entry_action_ok_simps del: One_nat_def group_ok.simps cong: list_all_weak)

text \<open>Lines 489271 to 489420.\<close>

definition ts_parse_actions_58 :: "(nat \<times> TSParseActionEntry list) list" where
  "ts_parse_actions_58 =
    [(17319, [Entry 1 False, REDUCE sym_fb_decl 12 0 2038]),
     (17321, [Entry 1 True, REDUCE sym_fb_decl 12 0 2402]),
     (17323, [Entry 1 False, REDUCE sym_fb_decl 12 0 2402]),
     (17325, [Entry 1 True, REDUCE sym_fb_decl 12 0 2403]),
     (17327, [Entry 1 False, REDUCE sym_fb_decl 12 0 2403]),
     (17329, [Entry 1 True, REDUCE sym_fb_decl 12 0 2039]),
     (17331, [Entry 1 False, REDUCE sym_fb_decl 12 0 2039]),
     (17333, [Entry 1 True, REDUCE sym_fb_decl 12 0 2404]),
     (17335, [Entry 1 False, REDUCE sym_fb_decl 12 0 2404]),
     (17337, [Entry 1 True, REDUCE sym_fb_decl 12 0 2405]),
     (17339, [Entry 1 False, REDUCE sym_fb_decl 12 0 2405]),
     (17341, [Entry 1 True, REDUCE sym_class_decl 8 0 628]),
     (17343, [Entry 1 False, REDUCE sym_class_decl 8 0 628]),
     (17345, [Entry 1 True, REDUCE sym_fb_decl 12 0 2040]),
     (17347, [Entry 1 False, REDUCE sym_fb_decl 12 0 2040]),
     (17349, [Entry 1 True, REDUCE sym_fb_decl 12 0 2406]),
     (17351, [Entry 1 False, REDUCE sym_fb_decl 12 0 2406]),
     (17353, [Entry 1 True, REDUCE sym_fb_decl 12 0 2407]),
     (17355, [Entry 1 False, REDUCE sym_fb_decl 12 0 2407]),
     (17357, [Entry 1 True, REDUCE sym_fb_decl 6 0 233]),
     (17359, [Entry 1 False, REDUCE sym_fb_decl 6 0 233]),
     (17361, [Entry 1 True, REDUCE sym_class_decl 8 0 362]),
     (17363, [Entry 1 False, REDUCE sym_class_decl 8 0 362]),
     (17365, [Entry 1 True, REDUCE sym_fb_decl 12 0 2408]),
     (17367, [Entry 1 False, REDUCE sym_fb_decl 12 0 2408]),
     (17369, [Entry 1 True, REDUCE sym_class_decl 8 0 629]),
     (17371, [Entry 1 False, REDUCE sym_class_decl 8 0 629]),
     (17373, [Entry 1 True, REDUCE sym_fb_decl 12 0 2041]),
     (17375, [Entry 1 False, REDUCE sym_fb_decl 12 0 2041]),
     (17377, [Entry 1 True, REDUCE sym_fb_decl 12 0 2409]),
     (17379, [Entry 1 False, REDUCE sym_fb_decl 12 0 2409]),
     (17381, [Entry 1 True, REDUCE sym_fb_decl 12 0 2410]),
     (17383, [Entry 1 False, REDUCE sym_fb_decl 12 0 2410]),
     (17385, [Entry 1 True, REDUCE sym_fb_decl 12 0 2411]),
     (17387, [Entry 1 False, REDUCE sym_fb_decl 12 0 2411]),
     (17389, [Entry 1 True, REDUCE sym_fb_decl 12 0 2412]),
     (17391, [Entry 1 False, REDUCE sym_fb_decl 12 0 2412]),
     (17393, [Entry 1 True, REDUCE sym_fb_decl 12 0 2413]),
     (17395, [Entry 1 False, REDUCE sym_fb_decl 12 0 2413]),
     (17397, [Entry 1 True, REDUCE sym_fb_decl 12 0 2051]),
     (17399, [Entry 1 False, REDUCE sym_fb_decl 12 0 2051]),
     (17401, [Entry 1 True, REDUCE sym_fb_decl 12 0 2414]),
     (17403, [Entry 1 False, REDUCE sym_fb_decl 12 0 2414]),
     (17405, [Entry 1 True, REDUCE sym_fb_decl 12 0 2415]),
     (17407, [Entry 1 False, REDUCE sym_fb_decl 12 0 2415]),
     (17409, [Entry 1 True, REDUCE sym_fb_decl 12 0 2416]),
     (17411, [Entry 1 False, REDUCE sym_fb_decl 12 0 2416]),
     (17413, [Entry 1 True, REDUCE sym_fb_decl 12 0 2417]),
     (17415, [Entry 1 False, REDUCE sym_fb_decl 12 0 2417]),
     (17417, [Entry 1 True, REDUCE sym_fb_decl 12 0 2418]),
     (17419, [Entry 1 False, REDUCE sym_fb_decl 12 0 2418]),
     (17421, [Entry 1 True, REDUCE sym_fb_decl 12 0 2062]),
     (17423, [Entry 1 False, REDUCE sym_fb_decl 12 0 2062]),
     (17425, [Entry 1 True, REDUCE sym_fb_decl 12 0 2419]),
     (17427, [Entry 1 False, REDUCE sym_fb_decl 12 0 2419]),
     (17429, [Entry 1 True, REDUCE sym_fb_decl 12 0 2420]),
     (17431, [Entry 1 False, REDUCE sym_fb_decl 12 0 2420]),
     (17433, [Entry 1 True, REDUCE sym_fb_decl 12 0 2421]),
     (17435, [Entry 1 False, REDUCE sym_fb_decl 12 0 2421]),
     (17437, [Entry 1 True, REDUCE sym_fb_decl 12 0 2067]),
     (17439, [Entry 1 False, REDUCE sym_fb_decl 12 0 2067]),
     (17441, [Entry 1 True, REDUCE sym_fb_decl 12 0 2422]),
     (17443, [Entry 1 False, REDUCE sym_fb_decl 12 0 2422]),
     (17445, [Entry 1 True, REDUCE sym_fb_decl 12 0 2423]),
     (17447, [Entry 1 False, REDUCE sym_fb_decl 12 0 2423]),
     (17449, [Entry 1 True, REDUCE sym_fb_decl 12 0 2069]),
     (17451, [Entry 1 False, REDUCE sym_fb_decl 12 0 2069]),
     (17453, [Entry 1 True, REDUCE sym_fb_decl 12 0 2424]),
     (17455, [Entry 1 False, REDUCE sym_fb_decl 12 0 2424]),
     (17457, [Entry 1 True, REDUCE sym_fb_decl 12 0 2425]),
     (17459, [Entry 1 False, REDUCE sym_fb_decl 12 0 2425]),
     (17461, [Entry 1 True, REDUCE sym_class_decl 9 0 1027]),
     (17463, [Entry 1 False, REDUCE sym_class_decl 9 0 1027]),
     (17465, [Entry 1 True, REDUCE sym_fb_decl 12 0 2070]),
     (17467, [Entry 1 False, REDUCE sym_fb_decl 12 0 2070]),
     (17469, [Entry 1 True, REDUCE sym_fb_decl 12 0 2426]),
     (17471, [Entry 1 False, REDUCE sym_fb_decl 12 0 2426]),
     (17473, [Entry 1 True, REDUCE sym_fb_decl 12 0 2427]),
     (17475, [Entry 1 False, REDUCE sym_fb_decl 12 0 2427]),
     (17477, [Entry 1 True, REDUCE sym_fb_decl 12 0 2071]),
     (17479, [Entry 1 False, REDUCE sym_fb_decl 12 0 2071]),
     (17481, [Entry 1 True, REDUCE sym_fb_decl 12 0 2428]),
     (17483, [Entry 1 False, REDUCE sym_fb_decl 12 0 2428]),
     (17485, [Entry 1 True, REDUCE sym_fb_decl 12 0 2429]),
     (17487, [Entry 1 False, REDUCE sym_fb_decl 12 0 2429]),
     (17489, [Entry 1 True, REDUCE sym_class_decl 9 0 650]),
     (17491, [Entry 1 False, REDUCE sym_class_decl 9 0 650]),
     (17493, [Entry 1 True, REDUCE sym_fb_decl 12 0 2072]),
     (17495, [Entry 1 False, REDUCE sym_fb_decl 12 0 2072]),
     (17497, [Entry 1 True, REDUCE sym_fb_decl 12 0 2430]),
     (17499, [Entry 1 False, REDUCE sym_fb_decl 12 0 2430]),
     (17501, [Entry 1 True, REDUCE sym_fb_decl 12 0 2431]),
     (17503, [Entry 1 False, REDUCE sym_fb_decl 12 0 2431]),
     (17505, [Entry 1 True, REDUCE sym_prog_decl 6 0 234]),
     (17507, [Entry 1 False, REDUCE sym_prog_decl 6 0 234]),
     (17509, [Entry 1 True, REDUCE sym_class_decl 9 0 1028]),
     (17511, [Entry 1 False, REDUCE sym_class_decl 9 0 1028]),
     (17513, [Entry 1 True, REDUCE sym_fb_decl 12 0 2432]),
     (17515, [Entry 1 False, REDUCE sym_fb_decl 12 0 2432]),
     (17517, [Entry 1 True, REDUCE sym_class_decl 8 0 630]),
     (17519, [Entry 1 False, REDUCE sym_class_decl 8 0 630]),
     (17521, [Entry 1 True, REDUCE sym_fb_decl 12 0 2073]),
     (17523, [Entry 1 False, REDUCE sym_fb_decl 12 0 2073]),
     (17525, [Entry 1 True, REDUCE sym_fb_decl 12 0 2433]),
     (17527, [Entry 1 False, REDUCE sym_fb_decl 12 0 2433]),
     (17529, [Entry 1 True, REDUCE sym_fb_decl 12 0 2434]),
     (17531, [Entry 1 False, REDUCE sym_fb_decl 12 0 2434]),
     (17533, [Entry 1 True, REDUCE sym_fb_decl 12 0 2435]),
     (17535, [Entry 1 False, REDUCE sym_fb_decl 12 0 2435]),
     (17537, [Entry 1 True, REDUCE sym_fb_decl 12 0 2436]),
     (17539, [Entry 1 False, REDUCE sym_fb_decl 12 0 2436]),
     (17541, [Entry 1 True, REDUCE sym_fb_decl 12 0 2080]),
     (17543, [Entry 1 False, REDUCE sym_fb_decl 12 0 2080]),
     (17545, [Entry 1 True, REDUCE sym_fb_decl 12 0 2437]),
     (17547, [Entry 1 False, REDUCE sym_fb_decl 12 0 2437]),
     (17549, [Entry 1 True, REDUCE sym_fb_decl 12 0 2438]),
     (17551, [Entry 1 False, REDUCE sym_fb_decl 12 0 2438]),
     (17553, [Entry 1 True, REDUCE sym_class_decl 8 0 631]),
     (17555, [Entry 1 False, REDUCE sym_class_decl 8 0 631]),
     (17557, [Entry 1 True, REDUCE sym_fb_decl 12 0 2081]),
     (17559, [Entry 1 False, REDUCE sym_fb_decl 12 0 2081]),
     (17561, [Entry 1 True, REDUCE sym_fb_decl 12 0 2439]),
     (17563, [Entry 1 False, REDUCE sym_fb_decl 12 0 2439]),
     (17565, [Entry 1 True, REDUCE sym_fb_decl 12 0 2440]),
     (17567, [Entry 1 False, REDUCE sym_fb_decl 12 0 2440]),
     (17569, [Entry 1 True, REDUCE sym_fb_decl 9 0 561]),
     (17571, [Entry 1 False, REDUCE sym_fb_decl 9 0 561]),
     (17573, [Entry 1 True, REDUCE sym_fb_decl 7 0 190]),
     (17575, [Entry 1 False, REDUCE sym_fb_decl 7 0 190]),
     (17577, [Entry 1 True, REDUCE sym_fb_decl 12 0 2441]),
     (17579, [Entry 1 False, REDUCE sym_fb_decl 12 0 2441]),
     (17581, [Entry 1 True, REDUCE sym_fb_decl 9 0 914]),
     (17583, [Entry 1 False, REDUCE sym_fb_decl 9 0 914]),
     (17585, [Entry 1 True, REDUCE sym_fb_decl 12 0 1630]),
     (17587, [Entry 1 False, REDUCE sym_fb_decl 12 0 1630]),
     (17589, [Entry 1 True, REDUCE sym_fb_decl 12 0 2442]),
     (17591, [Entry 1 False, REDUCE sym_fb_decl 12 0 2442]),
     (17593, [Entry 1 True, REDUCE sym_class_decl 8 0 632]),
     (17595, [Entry 1 False, REDUCE sym_class_decl 8 0 632]),
     (17597, [Entry 1 True, REDUCE sym_class_decl 9 0 651]),
     (17599, [Entry 1 False, REDUCE sym_class_decl 9 0 651]),
     (17601, [Entry 1 True, REDUCE sym_fb_decl 12 0 2443]),
     (17603, [Entry 1 False, REDUCE sym_fb_decl 12 0 2443]),
     (17605, [Entry 1 True, REDUCE sym_namespace_decl 5 0 93]),
     (17607, [Entry 1 False, REDUCE sym_namespace_decl 5 0 93]),
     (17609, [Entry 1 True, REDUCE sym_namespace_decl 5 0 94]),
     (17611, [Entry 1 False, REDUCE sym_namespace_decl 5 0 94]),
     (17613, [Entry 1 True, REDUCE sym_class_decl 9 0 1029]),
     (17615, [Entry 1 False, REDUCE sym_class_decl 9 0 1029]),
     (17617, [Entry 1 True, REDUCE sym_fb_decl 12 0 2444])]"

lemma ts_parse_actions_58_tiled: "tiled_from 17319 ts_parse_actions_58 \<and> after_runs 17319 ts_parse_actions_58 = 17619"
  unfolding ts_parse_actions_58_def by (simp cong: runs_weak)

lemma ts_parse_actions_58_ok: "list_all (\<lambda>(i, es). group_ok es) ts_parse_actions_58"
  unfolding ts_parse_actions_58_def
  by (simp add: group_ok_simps entry_action_ok_simps del: One_nat_def group_ok.simps cong: list_all_weak)

text \<open>Lines 489421 to 489570.\<close>

definition ts_parse_actions_59 :: "(nat \<times> TSParseActionEntry list) list" where
  "ts_parse_actions_59 =
    [(17619, [Entry 1 False, REDUCE sym_fb_decl 12 0 2444]),
     (17621, [Entry 1 True, REDUCE sym_class_decl 8 0 363]),
     (17623, [Entry 1 False, REDUCE sym_class_decl 8 0 363]),
     (17625, [Entry 1 True, REDUCE sym_fb_decl 12 0 2082]),
     (17627, [Entry 1 False, REDUCE sym_fb_decl 12 0 2082]),
     (17629, [Entry 1 True, REDUCE sym_fb_decl 12 0 2445]),
     (17631, [Entry 1 False, REDUCE sym_fb_decl 12 0 2445]),
     (17633, [Entry 1 True, REDUCE sym_fb_decl 12 0 2446]),
     (17635, [Entry 1 False, REDUCE sym_fb_decl 12 0 2446]),
     (17637, [Entry 1 True, REDUCE sym_fb_decl 12 0 2447]),
     (17639, [Entry 1 False, REDUCE sym_fb_decl 12 0 2447]),
     (17641, [Entry 1 True, REDUCE sym_fb_decl 12 0 2087]),
     (17643, [Entry 1 False, REDUCE sym_fb_decl 12 0 2087]),
     (17645, [Entry 1 True, REDUCE sym_fb_decl 12 0 2448]),
     (17647, [Entry 1 False, REDUCE sym_fb_decl 12 0 2448]),
     (17649, [Entry 1 True, REDUCE sym_fb_decl 12 0 2449]),
     (17651, [Entry 1 False, REDUCE sym_fb_decl 12 0 2449]),
     (17653, [Entry 1 True, REDUCE sym_fb_decl 12 0 2450]),
     (17655, [Entry 1 False, REDUCE sym_fb_decl 12 0 2450]),
     (17657, [Entry 1 True, REDUCE sym_fb_decl 12 0 2091]),
     (17659, [Entry 1 False, REDUCE sym_fb_decl 12 0 2091]),
     (17661, [Entry 1 True, REDUCE sym_fb_decl 12 0 2451]),
     (17663, [Entry 1 False, REDUCE sym_fb_decl 12 0 2451]),
     (17665, [Entry 1 True, REDUCE sym_fb_decl 12 0 2452]),
     (17667, [Entry 1 False, REDUCE sym_fb_decl 12 0 2452]),
     (17669, [Entry 1 True, REDUCE sym_fb_decl 12 0 2093]),
     (17671, [Entry 1 False, REDUCE sym_fb_decl 12 0 2093]),
     (17673, [Entry 1 True, REDUCE sym_fb_decl 12 0 2453]),
     (17675, [Entry 1 False, REDUCE sym_fb_decl 12 0 2453]),
     (17677, [Entry 1 True, REDUCE sym_fb_decl 12 0 2454]),
     (17679, [Entry 1 False, REDUCE sym_fb_decl 12 0 2454]),
     (17681, [Entry 1 True, REDUCE sym_class_decl 8 0 633]),
     (17683, [Entry 1 False, REDUCE sym_class_decl 8 0 633]),
     (17685, [Entry 1 True, REDUCE sym_fb_decl 12 0 2094]),
     (17687, [Entry 1 False, REDUCE sym_fb_decl 12 0 2094]),
     (17689, [Entry 1 True, REDUCE sym_fb_decl 12 0 2455]),
     (17691, [Entry 1 False, REDUCE sym_fb_decl 12 0 2455]),
     (17693, [Entry 1 True, REDUCE sym_fb_decl 12 0 2456]),
     (17695, [Entry 1 False, REDUCE sym_fb_decl 12 0 2456]),
     (17697, [Entry 1 True, REDUCE sym_fb_decl 12 0 2457]),
     (17699, [Entry 1 False, REDUCE sym_fb_decl 12 0 2457]),
     (17701, [Entry 1 True, REDUCE sym_fb_decl 12 0 2458]),
     (17703, [Entry 1 False, REDUCE sym_fb_decl 12 0 2458]),
     (17705, [Entry 1 True, REDUCE sym_fb_decl 12 0 2101]),
     (17707, [Entry 1 False, REDUCE sym_fb_decl 12 0 2101]),
     (17709, [Entry 1 True, REDUCE sym_fb_decl 12 0 2459]),
     (17711, [Entry 1 False, REDUCE sym_fb_decl 12 0 2459]),
     (17713, [Entry 1 True, REDUCE sym_fb_decl 12 0 2460]),
     (17715, [Entry 1 False, REDUCE sym_fb_decl 12 0 2460]),
     (17717, [Entry 1 True, REDUCE sym_fb_decl 12 0 2461]),
     (17719, [Entry 1 False, REDUCE sym_fb_decl 12 0 2461]),
     (17721, [Entry 1 True, REDUCE sym_fb_decl 12 0 2105]),
     (17723, [Entry 1 False, REDUCE sym_fb_decl 12 0 2105]),
     (17725, [Entry 1 True, REDUCE sym_fb_decl 12 0 2462]),
     (17727, [Entry 1 False, REDUCE sym_fb_decl 12 0 2462]),
     (17729, [Entry 1 True, REDUCE sym_fb_decl 12 0 2463]),
     (17731, [Entry 1 False, REDUCE sym_fb_decl 12 0 2463]),
     (17733, [Entry 1 True, REDUCE sym_fb_decl 12 0 2107]),
     (17735, [Entry 1 False, REDUCE sym_fb_decl 12 0 2107]),
     (17737, [Entry 1 True, REDUCE sym_fb_decl 12 0 2464]),
     (17739, [Entry 1 False, REDUCE sym_fb_decl 12 0 2464]),
     (17741, [Entry 1 True, REDUCE sym_fb_decl 12 0 2465]),
     (17743, [Entry 1 False, REDUCE sym_fb_decl 12 0 2465]),
     (17745, [Entry 1 True, REDUCE sym_class_decl 9 0 205]),
     (17747, [Entry 1 False, REDUCE sym_class_decl 9 0 205]),
     (17749, [Entry 1 True, REDUCE sym_fb_decl 12 0 2108]),
     (17751, [Entry 1 False, REDUCE sym_fb_decl 12 0 2108]),
     (17753, [Entry 1 True, REDUCE sym_fb_decl 12 0 2466]),
     (17755, [Entry 1 False, REDUCE sym_fb_decl 12 0 2466]),
     (17757, [Entry 1 True, REDUCE sym_fb_decl 12 0 2467]),
     (17759, [Entry 1 False, REDUCE sym_fb_decl 12 0 2467]),
     (17761, [Entry 1 True, REDUCE sym_fb_decl 12 0 2468]),
     (17763, [Entry 1 False, REDUCE sym_fb_decl 12 0 2468]),
     (17765, [Entry 1 True, REDUCE sym_class_decl 8 0 83]),
     (17767, [Entry 1 False, REDUCE sym_class_decl 8 0 83]),
     (17769, [Entry 1 True, REDUCE sym_fb_decl 13 0 2470]),
     (17771, [Entry 1 False, REDUCE sym_fb_decl 13 0 2470]),
     (17773, [Entry 1 True, REDUCE sym_fb_decl 13 0 2471]),
     (17775, [Entry 1 False, REDUCE sym_fb_decl 13 0 2471]),
     (17777, [Entry 1 True, REDUCE sym_fb_decl 13 0 2472]),
     (17779, [Entry 1 False, REDUCE sym_fb_decl 13 0 2472]),
     (17781, [Entry 1 True, REDUCE sym_fb_decl 13 0 2132]),
     (17783, [Entry 1 False, REDUCE sym_fb_decl 13 0 2132]),
     (17785, [Entry 1 True, REDUCE sym_fb_decl 13 0 2473]),
     (17787, [Entry 1 False, REDUCE sym_fb_decl 13 0 2473]),
     (17789, [Entry 1 True, REDUCE sym_fb_decl 13 0 2474]),
     (17791, [Entry 1 False, REDUCE sym_fb_decl 13 0 2474]),
     (17793, [Entry 1 True, REDUCE sym_fb_decl 13 0 2475]),
     (17795, [Entry 1 False, REDUCE sym_fb_decl 13 0 2475]),
     (17797, [Entry 1 True, REDUCE sym_fb_decl 13 0 2476]),
     (17799, [Entry 1 False, REDUCE sym_fb_decl 13 0 2476]),
     (17801, [Entry 1 True, REDUCE sym_fb_decl 13 0 2139]),
     (17803, [Entry 1 False, REDUCE sym_fb_decl 13 0 2139]),
     (17805, [Entry 1 True, REDUCE sym_fb_decl 13 0 2477]),
     (17807, [Entry 1 False, REDUCE sym_fb_decl 13 0 2477]),
     (17809, [Entry 1 True, REDUCE sym_fb_decl 13 0 2478]),
     (17811, [Entry 1 False, REDUCE sym_fb_decl 13 0 2478]),
     (17813, [Entry 1 True, REDUCE sym_fb_decl 13 0 2479]),
     (17815, [Entry 1 False, REDUCE sym_fb_decl 13 0 2479]),
     (17817, [Entry 1 True, REDUCE sym_fb_decl 13 0 2143]),
     (17819, [Entry 1 False, REDUCE sym_fb_decl 13 0 2143]),
     (17821, [Entry 1 True, REDUCE sym_fb_decl 13 0 2480]),
     (17823, [Entry 1 False, REDUCE sym_fb_decl 13 0 2480]),
     (17825, [Entry 1 True, REDUCE sym_fb_decl 13 0 2481]),
     (17827, [Entry 1 False, REDUCE sym_fb_decl 13 0 2481]),
     (17829, [Entry 1 True, REDUCE sym_fb_decl 13 0 2145]),
     (17831, [Entry 1 False, REDUCE sym_fb_decl 13 0 2145]),
     (17833, [Entry 1 True, REDUCE sym_fb_decl 13 0 2482]),
     (17835, [Entry 1 False, REDUCE sym_fb_decl 13 0 2482]),
     (17837, [Entry 1 True, REDUCE sym_fb_decl 13 0 2483]),
     (17839, [Entry 1 False, REDUCE sym_fb_decl 13 0 2483]),
     (17841, [Entry 1 True, REDUCE sym_class_decl 8 0 634]),
     (17843, [Entry 1 False, REDUCE sym_class_decl 8 0 634]),
     (17845, [Entry 1 True, REDUCE sym_fb_decl 13 0 2146]),
     (17847, [Entry 1 False, REDUCE sym_fb_decl 13 0 2146]),
     (17849, [Entry 1 True, REDUCE sym_fb_decl 13 0 2484]),
     (17851, [Entry 1 False, REDUCE sym_fb_decl 13 0 2484]),
     (17853, [Entry 1 True, REDUCE sym_fb_decl 13 0 2485]),
     (17855, [Entry 1 False, REDUCE sym_fb_decl 13 0 2485]),
     (17857, [Entry 1 True, REDUCE sym_fb_decl 13 0 2486]),
     (17859, [Entry 1 False, REDUCE sym_fb_decl 13 0 2486]),
     (17861, [Entry 1 True, REDUCE sym_fb_decl 13 0 2487]),
     (17863, [Entry 1 False, REDUCE sym_fb_decl 13 0 2487]),
     (17865, [Entry 1 True, REDUCE sym_fb_decl 13 0 2488]),
     (17867, [Entry 1 False, REDUCE sym_fb_decl 13 0 2488]),
     (17869, [Entry 1 True, REDUCE sym_fb_decl 13 0 2489]),
     (17871, [Entry 1 False, REDUCE sym_fb_decl 13 0 2489]),
     (17873, [Entry 1 True, REDUCE sym_fb_decl 13 0 2163]),
     (17875, [Entry 1 False, REDUCE sym_fb_decl 13 0 2163]),
     (17877, [Entry 1 True, REDUCE sym_fb_decl 13 0 2490]),
     (17879, [Entry 1 False, REDUCE sym_fb_decl 13 0 2490]),
     (17881, [Entry 1 True, REDUCE sym_fb_decl 13 0 2491]),
     (17883, [Entry 1 False, REDUCE sym_fb_decl 13 0 2491]),
     (17885, [Entry 1 True, REDUCE sym_fb_decl 13 0 2492]),
     (17887, [Entry 1 False, REDUCE sym_fb_decl 13 0 2492]),
     (17889, [Entry 1 True, REDUCE sym_fb_decl 13 0 2167]),
     (17891, [Entry 1 False, REDUCE sym_fb_decl 13 0 2167]),
     (17893, [Entry 1 True, REDUCE sym_fb_decl 13 0 2493]),
     (17895, [Entry 1 False, REDUCE sym_fb_decl 13 0 2493]),
     (17897, [Entry 1 True, REDUCE sym_fb_decl 13 0 2494]),
     (17899, [Entry 1 False, REDUCE sym_fb_decl 13 0 2494]),
     (17901, [Entry 1 True, REDUCE sym_fb_decl 13 0 2169]),
     (17903, [Entry 1 False, REDUCE sym_fb_decl 13 0 2169]),
     (17905, [Entry 1 True, REDUCE sym_fb_decl 13 0 2495]),
     (17907, [Entry 1 False, REDUCE sym_fb_decl 13 0 2495]),
     (17909, [Entry 1 True, REDUCE sym_fb_decl 13 0 2496]),
     (17911, [Entry 1 False, REDUCE sym_fb_decl 13 0 2496]),
     (17913, [Entry 1 True, REDUCE sym_class_decl 9 0 1030]),
     (17915, [Entry 1 False, REDUCE sym_class_decl 9 0 1030]),
     (17917, [Entry 1 True, REDUCE sym_fb_decl 13 0 2170])]"

lemma ts_parse_actions_59_tiled: "tiled_from 17619 ts_parse_actions_59 \<and> after_runs 17619 ts_parse_actions_59 = 17919"
  unfolding ts_parse_actions_59_def by (simp cong: runs_weak)

lemma ts_parse_actions_59_ok: "list_all (\<lambda>(i, es). group_ok es) ts_parse_actions_59"
  unfolding ts_parse_actions_59_def
  by (simp add: group_ok_simps entry_action_ok_simps del: One_nat_def group_ok.simps cong: list_all_weak)

text \<open>Lines 489571 to 489720.\<close>

definition ts_parse_actions_60 :: "(nat \<times> TSParseActionEntry list) list" where
  "ts_parse_actions_60 =
    [(17919, [Entry 1 False, REDUCE sym_fb_decl 13 0 2170]),
     (17921, [Entry 1 True, REDUCE sym_fb_decl 13 0 2497]),
     (17923, [Entry 1 False, REDUCE sym_fb_decl 13 0 2497]),
     (17925, [Entry 1 True, REDUCE sym_fb_decl 13 0 2498]),
     (17927, [Entry 1 False, REDUCE sym_fb_decl 13 0 2498]),
     (17929, [Entry 1 True, REDUCE sym_fb_decl 13 0 2499]),
     (17931, [Entry 1 False, REDUCE sym_fb_decl 13 0 2499]),
     (17933, [Entry 1 True, REDUCE sym_fb_decl 13 0 2176]),
     (17935, [Entry 1 False, REDUCE sym_fb_decl 13 0 2176]),
     (17937, [Entry 1 True, REDUCE sym_fb_decl 13 0 2500]),
     (17939, [Entry 1 False, REDUCE sym_fb_decl 13 0 2500]),
     (17941, [Entry 1 True, REDUCE sym_fb_decl 13 0 2501]),
     (17943, [Entry 1 False, REDUCE sym_fb_decl 13 0 2501]),
     (17945, [Entry 1 True, REDUCE sym_fb_decl 13 0 2178]),
     (17947, [Entry 1 False, REDUCE sym_fb_decl 13 0 2178]),
     (17949, [Entry 1 True, REDUCE sym_fb_decl 13 0 2502]),
     (17951, [Entry 1 False, REDUCE sym_fb_decl 13 0 2502]),
     (17953, [Entry 1 True, REDUCE sym_fb_decl 13 0 2503]),
     (17955, [Entry 1 False, REDUCE sym_fb_decl 13 0 2503]),
     (17957, [Entry 1 True, REDUCE sym_fb_decl 9 0 915]),
     (17959, [Entry 1 False, REDUCE sym_fb_decl 9 0 915]),
     (17961, [Entry 1 True, REDUCE sym_fb_decl 13 0 2179]),
     (17963, [Entry 1 False, REDUCE sym_fb_decl 13 0 2179]),
     (17965, [Entry 1 True, REDUCE sym_fb_decl 13 0 2504]),
     (17967, [Entry 1 False, REDUCE sym_fb_decl 13 0 2504]),
     (17969, [Entry 1 True, REDUCE sym_fb_decl 13 0 2505]),
     (17971, [Entry 1 False, REDUCE sym_fb_decl 13 0 2505]),
     (17973, [Entry 1 True, REDUCE sym_fb_decl 13 0 2180]),
     (17975, [Entry 1 False, REDUCE sym_fb_decl 13 0 2180]),
     (17977, [Entry 1 True, REDUCE sym_fb_decl 13 0 2506]),
     (17979, [Entry 1 False, REDUCE sym_fb_decl 13 0 2506]),
     (17981, [Entry 1 True, REDUCE sym_fb_decl 13 0 2507]),
     (17983, [Entry 1 False, REDUCE sym_fb_decl 13 0 2507]),
     (17985, [Entry 1 True, REDUCE sym_class_decl 9 0 1031]),
     (17987, [Entry 1 False, REDUCE sym_class_decl 9 0 1031]),
     (17989, [Entry 1 True, REDUCE sym_fb_decl 13 0 2181]),
     (17991, [Entry 1 False, REDUCE sym_fb_decl 13 0 2181]),
     (17993, [Entry 1 True, REDUCE sym_fb_decl 13 0 2508]),
     (17995, [Entry 1 False, REDUCE sym_fb_decl 13 0 2508]),
     (17997, [Entry 1 True, REDUCE sym_fb_decl 13 0 2509]),
     (17999, [Entry 1 False, REDUCE sym_fb_decl 13 0 2509]),
     (18001, [Entry 1 True, REDUCE sym_class_decl 8 0 635]),
     (18003, [Entry 1 False, REDUCE sym_class_decl 8 0 635]),
     (18005, [Entry 1 True, REDUCE sym_class_decl 8 0 364]),
     (18007, [Entry 1 False, REDUCE sym_class_decl 8 0 364]),
     (18009, [Entry 1 True, REDUCE sym_fb_decl 13 0 2510]),
     (18011, [Entry 1 False, REDUCE sym_fb_decl 13 0 2510]),
     (18013, [Entry 1 True, REDUCE sym_class_decl 8 0 365]),
     (18015, [Entry 1 False, REDUCE sym_class_decl 8 0 365]),
     (18017, [Entry 1 True, REDUCE sym_fb_decl 13 0 2182]),
     (18019, [Entry 1 False, REDUCE sym_fb_decl 13 0 2182]),
     (18021, [Entry 1 True, REDUCE sym_fb_decl 13 0 2511]),
     (18023, [Entry 1 False, REDUCE sym_fb_decl 13 0 2511]),
     (18025, [Entry 1 True, REDUCE sym_fb_decl 13 0 2512]),
     (18027, [Entry 1 False, REDUCE sym_fb_decl 13 0 2512]),
     (18029, [Entry 1 True, REDUCE sym_fb_decl 13 0 2513]),
     (18031, [Entry 1 False, REDUCE sym_fb_decl 13 0 2513]),
     (18033, [Entry 1 True, REDUCE sym_fb_decl 13 0 2514]),
     (18035, [Entry 1 False, REDUCE sym_fb_decl 13 0 2514]),
     (18037, [Entry 1 True, REDUCE sym_fb_decl 13 0 2515]),
     (18039, [Entry 1 False, REDUCE sym_fb_decl 13 0 2515]),
     (18041, [Entry 1 True, REDUCE sym_fb_decl 13 0 2192]),
     (18043, [Entry 1 False, REDUCE sym_fb_decl 13 0 2192]),
     (18045, [Entry 1 True, REDUCE sym_fb_decl 13 0 2516]),
     (18047, [Entry 1 False, REDUCE sym_fb_decl 13 0 2516]),
     (18049, [Entry 1 True, REDUCE sym_fb_decl 13 0 2517]),
     (18051, [Entry 1 False, REDUCE sym_fb_decl 13 0 2517]),
     (18053, [Entry 1 True, REDUCE sym_fb_decl 13 0 2518]),
     (18055, [Entry 1 False, REDUCE sym_fb_decl 13 0 2518]),
     (18057, [Entry 1 True, REDUCE sym_fb_decl 13 0 2519]),
     (18059, [Entry 1 False, REDUCE sym_fb_decl 13 0 2519]),
     (18061, [Entry 1 True, REDUCE sym_fb_decl 13 0 2520]),
     (18063, [Entry 1 False, REDUCE sym_fb_decl 13 0 2520]),
     (18065, [Entry 1 True, REDUCE sym_fb_decl 13 0 2203]),
     (18067, [Entry 1 False, REDUCE sym_fb_decl 13 0 2203]),
     (18069, [Entry 1 True, REDUCE sym_fb_decl 13 0 2521]),
     (18071, [Entry 1 False, REDUCE sym_fb_decl 13 0 2521]),
     (18073, [Entry 1 True, REDUCE sym_fb_decl 13 0 2522]),
     (18075, [Entry 1 False, REDUCE sym_fb_decl 13 0 2522]),
     (18077, [Entry 1 True, REDUCE sym_fb_decl 13 0 2523]),
     (18079, [Entry 1 False, REDUCE sym_fb_decl 13 0 2523]),
     (18081, [Entry 1 True, REDUCE sym_fb_decl 13 0 2524]),
     (18083, [Entry 1 False, REDUCE sym_fb_decl 13 0 2524]),
     (18085, [Entry 1 True, REDUCE sym_fb_decl 13 0 2525]),
     (18087, [Entry 1 False, REDUCE sym_fb_decl 13 0 2525]),
     (18089, [Entry 1 True, REDUCE sym_fb_decl 13 0 2526]),
     (18091, [Entry 1 False, REDUCE sym_fb_decl 13 0 2526]),
     (18093, [Entry 1 True, REDUCE sym_fb_decl 13 0 2220]),
     (18095, [Entry 1 False, REDUCE sym_fb_decl 13 0 2220]),
     (18097, [Entry 1 True, REDUCE sym_fb_decl 13 0 2527]),
     (18099, [Entry 1 False, REDUCE sym_fb_decl 13 0 2527]),
     (18101, [Entry 1 True, REDUCE sym_fb_decl 13 0 2528]),
     (18103, [Entry 1 False, REDUCE sym_fb_decl 13 0 2528]),
     (18105, [Entry 1 True, REDUCE sym_fb_decl 13 0 2529]),
     (18107, [Entry 1 False, REDUCE sym_fb_decl 13 0 2529]),
     (18109, [Entry 1 True, REDUCE sym_fb_decl 13 0 2530]),
     (18111, [Entry 1 False, REDUCE sym_fb_decl 13 0 2530]),
     (18113, [Entry 1 True, REDUCE sym_fb_decl 13 0 2531]),
     (18115, [Entry 1 False, REDUCE sym_fb_decl 13 0 2531]),
     (18117, [Entry 1 True, REDUCE sym_fb_decl 13 0 2233]),
     (18119, [Entry 1 False, REDUCE sym_fb_decl 13 0 2233]),
     (18121, [Entry 1 True, REDUCE sym_fb_decl 13 0 2532]),
     (18123, [Entry 1 False, REDUCE sym_fb_decl 13 0 2532]),
     (18125, [Entry 1 True, REDUCE sym_fb_decl 13 0 2533]),
     (18127, [Entry 1 False, REDUCE sym_fb_decl 13 0 2533]),
     (18129, [Entry 1 True, REDUCE sym_fb_decl 13 0 2534]),
     (18131, [Entry 1 False, REDUCE sym_fb_decl 13 0 2534]),
     (18133, [Entry 1 True, REDUCE sym_fb_decl 13 0 2535]),
     (18135, [Entry 1 False, REDUCE sym_fb_decl 13 0 2535]),
     (18137, [Entry 1 True, REDUCE sym_fb_decl 13 0 2240]),
     (18139, [Entry 1 False, REDUCE sym_fb_decl 13 0 2240]),
     (18141, [Entry 1 True, REDUCE sym_fb_decl 13 0 2536]),
     (18143, [Entry 1 False, REDUCE sym_fb_decl 13 0 2536]),
     (18145, [Entry 1 True, REDUCE sym_fb_decl 13 0 2537]),
     (18147, [Entry 1 False, REDUCE sym_fb_decl 13 0 2537]),
     (18149, [Entry 1 True, REDUCE sym_fb_decl 13 0 2538]),
     (18151, [Entry 1 False, REDUCE sym_fb_decl 13 0 2538]),
     (18153, [Entry 1 True, REDUCE sym_fb_decl 13 0 2244]),
     (18155, [Entry 1 False, REDUCE sym_fb_decl 13 0 2244]),
     (18157, [Entry 1 True, REDUCE sym_fb_decl 13 0 2539]),
     (18159, [Entry 1 False, REDUCE sym_fb_decl 13 0 2539]),
     (18161, [Entry 1 True, REDUCE sym_fb_decl 13 0 2540]),
     (18163, [Entry 1 False, REDUCE sym_fb_decl 13 0 2540]),
     (18165, [Entry 1 True, REDUCE sym_fb_decl 13 0 2246]),
     (18167, [Entry 1 False, REDUCE sym_fb_decl 13 0 2246]),
     (18169, [Entry 1 True, REDUCE sym_fb_decl 13 0 2541]),
     (18171, [Entry 1 False, REDUCE sym_fb_decl 13 0 2541]),
     (18173, [Entry 1 True, REDUCE sym_fb_decl 13 0 2542]),
     (18175, [Entry 1 False, REDUCE sym_fb_decl 13 0 2542]),
     (18177, [Entry 1 True, REDUCE sym_class_decl 8 0 366]),
     (18179, [Entry 1 False, REDUCE sym_class_decl 8 0 366]),
     (18181, [Entry 1 True, REDUCE sym_fb_decl 13 0 2247]),
     (18183, [Entry 1 False, REDUCE sym_fb_decl 13 0 2247]),
     (18185, [Entry 1 True, REDUCE sym_fb_decl 13 0 2543]),
     (18187, [Entry 1 False, REDUCE sym_fb_decl 13 0 2543]),
     (18189, [Entry 1 True, REDUCE sym_fb_decl 13 0 2544]),
     (18191, [Entry 1 False, REDUCE sym_fb_decl 13 0 2544]),
     (18193, [Entry 1 True, REDUCE sym_fb_decl 13 0 2545]),
     (18195, [Entry 1 False, REDUCE sym_fb_decl 13 0 2545]),
     (18197, [Entry 1 True, REDUCE sym_fb_decl 13 0 2546]),
     (18199, [Entry 1 False, REDUCE sym_fb_decl 13 0 2546]),
     (18201, [Entry 1 True, REDUCE sym_class_decl 13 0 2260]),
     (18203, [Entry 1 False, REDUCE sym_class_decl 13 0 2260]),
     (18205, [Entry 1 True, REDUCE sym_class_decl 13 0 2261]),
     (18207, [Entry 1 False, REDUCE sym_class_decl 13 0 2261]),
     (18209, [Entry 1 True, REDUCE sym_class_decl 13 0 2262]),
     (18211, [Entry 1 False, REDUCE sym_class_decl 13 0 2262]),
     (18213, [Entry 1 True, REDUCE sym_class_decl 13 0 2263]),
     (18215, [Entry 1 False, REDUCE sym_class_decl 13 0 2263]),
     (18217, [Entry 1 True, REDUCE sym_class_decl 13 0 2547])]"

lemma ts_parse_actions_60_tiled: "tiled_from 17919 ts_parse_actions_60 \<and> after_runs 17919 ts_parse_actions_60 = 18219"
  unfolding ts_parse_actions_60_def by (simp cong: runs_weak)

lemma ts_parse_actions_60_ok: "list_all (\<lambda>(i, es). group_ok es) ts_parse_actions_60"
  unfolding ts_parse_actions_60_def
  by (simp add: group_ok_simps entry_action_ok_simps del: One_nat_def group_ok.simps cong: list_all_weak)

text \<open>Lines 489721 to 489870.\<close>

definition ts_parse_actions_61 :: "(nat \<times> TSParseActionEntry list) list" where
  "ts_parse_actions_61 =
    [(18219, [Entry 1 False, REDUCE sym_class_decl 13 0 2547]),
     (18221, [Entry 1 True, REDUCE sym_class_decl 13 0 2264]),
     (18223, [Entry 1 False, REDUCE sym_class_decl 13 0 2264]),
     (18225, [Entry 1 True, REDUCE sym_class_decl 13 0 2265]),
     (18227, [Entry 1 False, REDUCE sym_class_decl 13 0 2265]),
     (18229, [Entry 1 True, REDUCE sym_class_decl 13 0 2266]),
     (18231, [Entry 1 False, REDUCE sym_class_decl 13 0 2266]),
     (18233, [Entry 1 True, REDUCE sym_class_decl 13 0 2267]),
     (18235, [Entry 1 False, REDUCE sym_class_decl 13 0 2267]),
     (18237, [Entry 1 True, REDUCE sym_class_decl 13 0 2548]),
     (18239, [Entry 1 False, REDUCE sym_class_decl 13 0 2548]),
     (18241, [Entry 1 True, REDUCE sym_class_decl 13 0 2268]),
     (18243, [Entry 1 False, REDUCE sym_class_decl 13 0 2268]),
     (18245, [Entry 1 True, REDUCE sym_class_decl 13 0 2269]),
     (18247, [Entry 1 False, REDUCE sym_class_decl 13 0 2269]),
     (18249, [Entry 1 True, REDUCE sym_class_decl 13 0 2270]),
     (18251, [Entry 1 False, REDUCE sym_class_decl 13 0 2270]),
     (18253, [Entry 1 True, REDUCE sym_class_decl 13 0 2549]),
     (18255, [Entry 1 False, REDUCE sym_class_decl 13 0 2549]),
     (18257, [Entry 1 True, REDUCE sym_class_decl 13 0 2271]),
     (18259, [Entry 1 False, REDUCE sym_class_decl 13 0 2271]),
     (18261, [Entry 1 True, REDUCE sym_class_decl 13 0 2272]),
     (18263, [Entry 1 False, REDUCE sym_class_decl 13 0 2272]),
     (18265, [Entry 1 True, REDUCE sym_class_decl 13 0 2550]),
     (18267, [Entry 1 False, REDUCE sym_class_decl 13 0 2550]),
     (18269, [Entry 1 True, REDUCE sym_class_decl 13 0 1890]),
     (18271, [Entry 1 False, REDUCE sym_class_decl 13 0 1890]),
     (18273, [Entry 1 True, REDUCE sym_class_decl 13 0 2551]),
     (18275, [Entry 1 False, REDUCE sym_class_decl 13 0 2551]),
     (18277, [Entry 1 True, REDUCE sym_class_decl 9 0 652]),
     (18279, [Entry 1 False, REDUCE sym_class_decl 9 0 652]),
     (18281, [Entry 1 True, REDUCE sym_class_decl 13 0 2552]),
     (18283, [Entry 1 False, REDUCE sym_class_decl 13 0 2552]),
     (18285, [Entry 1 True, REDUCE sym_class_decl 13 0 2273]),
     (18287, [Entry 1 False, REDUCE sym_class_decl 13 0 2273]),
     (18289, [Entry 1 True, REDUCE sym_class_decl 13 0 2274]),
     (18291, [Entry 1 False, REDUCE sym_class_decl 13 0 2274]),
     (18293, [Entry 1 True, REDUCE sym_class_decl 13 0 2275]),
     (18295, [Entry 1 False, REDUCE sym_class_decl 13 0 2275]),
     (18297, [Entry 1 True, REDUCE sym_class_decl 13 0 2276]),
     (18299, [Entry 1 False, REDUCE sym_class_decl 13 0 2276]),
     (18301, [Entry 1 True, REDUCE sym_class_decl 13 0 2277]),
     (18303, [Entry 1 False, REDUCE sym_class_decl 13 0 2277]),
     (18305, [Entry 1 True, REDUCE sym_class_decl 13 0 2278]),
     (18307, [Entry 1 False, REDUCE sym_class_decl 13 0 2278]),
     (18309, [Entry 1 True, REDUCE sym_class_decl 13 0 2279]),
     (18311, [Entry 1 False, REDUCE sym_class_decl 13 0 2279]),
     (18313, [Entry 1 True, REDUCE sym_class_decl 13 0 2280]),
     (18315, [Entry 1 False, REDUCE sym_class_decl 13 0 2280]),
     (18317, [Entry 1 True, REDUCE sym_class_decl 13 0 2553]),
     (18319, [Entry 1 False, REDUCE sym_class_decl 13 0 2553]),
     (18321, [Entry 1 True, REDUCE sym_class_decl 13 0 2281]),
     (18323, [Entry 1 False, REDUCE sym_class_decl 13 0 2281]),
     (18325, [Entry 1 True, REDUCE sym_fb_decl 13 0 2557]),
     (18327, [Entry 1 False, REDUCE sym_fb_decl 13 0 2557]),
     (18329, [Entry 1 True, REDUCE sym_fb_decl 13 0 2558]),
     (18331, [Entry 1 False, REDUCE sym_fb_decl 13 0 2558]),
     (18333, [Entry 1 True, REDUCE sym_fb_decl 13 0 2559]),
     (18335, [Entry 1 False, REDUCE sym_fb_decl 13 0 2559]),
     (18337, [Entry 1 True, REDUCE sym_fb_decl 13 0 2291]),
     (18339, [Entry 1 False, REDUCE sym_fb_decl 13 0 2291]),
     (18341, [Entry 1 True, REDUCE sym_fb_decl 13 0 2560]),
     (18343, [Entry 1 False, REDUCE sym_fb_decl 13 0 2560]),
     (18345, [Entry 1 True, REDUCE sym_fb_decl 13 0 2561]),
     (18347, [Entry 1 False, REDUCE sym_fb_decl 13 0 2561]),
     (18349, [Entry 1 True, REDUCE sym_fb_decl 13 0 2562]),
     (18351, [Entry 1 False, REDUCE sym_fb_decl 13 0 2562]),
     (18353, [Entry 1 True, REDUCE sym_fb_decl 13 0 2295]),
     (18355, [Entry 1 False, REDUCE sym_fb_decl 13 0 2295]),
     (18357, [Entry 1 True, REDUCE sym_fb_decl 13 0 2563]),
     (18359, [Entry 1 False, REDUCE sym_fb_decl 13 0 2563]),
     (18361, [Entry 1 True, REDUCE sym_fb_decl 13 0 2564]),
     (18363, [Entry 1 False, REDUCE sym_fb_decl 13 0 2564]),
     (18365, [Entry 1 True, REDUCE sym_fb_decl 13 0 2297]),
     (18367, [Entry 1 False, REDUCE sym_fb_decl 13 0 2297]),
     (18369, [Entry 1 True, REDUCE sym_fb_decl 13 0 2565]),
     (18371, [Entry 1 False, REDUCE sym_fb_decl 13 0 2565]),
     (18373, [Entry 1 True, REDUCE sym_fb_decl 13 0 2566]),
     (18375, [Entry 1 False, REDUCE sym_fb_decl 13 0 2566]),
     (18377, [Entry 1 True, REDUCE sym_class_decl 8 0 307]),
     (18379, [Entry 1 False, REDUCE sym_class_decl 8 0 307]),
     (18381, [Entry 1 True, REDUCE sym_fb_decl 13 0 2298]),
     (18383, [Entry 1 False, REDUCE sym_fb_decl 13 0 2298]),
     (18385, [Entry 1 True, REDUCE sym_fb_decl 13 0 2567]),
     (18387, [Entry 1 False, REDUCE sym_fb_decl 13 0 2567]),
     (18389, [Entry 1 True, REDUCE sym_fb_decl 13 0 2568]),
     (18391, [Entry 1 False, REDUCE sym_fb_decl 13 0 2568]),
     (18393, [Entry 1 True, REDUCE sym_fb_decl 13 0 2569]),
     (18395, [Entry 1 False, REDUCE sym_fb_decl 13 0 2569]),
     (18397, [Entry 1 True, REDUCE sym_fb_decl 13 0 2304]),
     (18399, [Entry 1 False, REDUCE sym_fb_decl 13 0 2304]),
     (18401, [Entry 1 True, REDUCE sym_fb_decl 13 0 2570]),
     (18403, [Entry 1 False, REDUCE sym_fb_decl 13 0 2570]),
     (18405, [Entry 1 True, REDUCE sym_fb_decl 13 0 2571]),
     (18407, [Entry 1 False, REDUCE sym_fb_decl 13 0 2571]),
     (18409, [Entry 1 True, REDUCE sym_fb_decl 13 0 2306]),
     (18411, [Entry 1 False, REDUCE sym_fb_decl 13 0 2306]),
     (18413, [Entry 1 True, REDUCE sym_fb_decl 13 0 2572]),
     (18415, [Entry 1 False, REDUCE sym_fb_decl 13 0 2572]),
     (18417, [Entry 1 True, REDUCE sym_fb_decl 13 0 2573]),
     (18419, [Entry 1 False, REDUCE sym_fb_decl 13 0 2573]),
     (18421, [Entry 1 True, REDUCE sym_class_decl 8 0 636]),
     (18423, [Entry 1 False, REDUCE sym_class_decl 8 0 636]),
     (18425, [Entry 1 True, REDUCE sym_fb_decl 13 0 2307]),
     (18427, [Entry 1 False, REDUCE sym_fb_decl 13 0 2307]),
     (18429, [Entry 1 True, REDUCE sym_fb_decl 13 0 2574]),
     (18431, [Entry 1 False, REDUCE sym_fb_decl 13 0 2574]),
     (18433, [Entry 1 True, REDUCE sym_fb_decl 13 0 2575]),
     (18435, [Entry 1 False, REDUCE sym_fb_decl 13 0 2575]),
     (18437, [Entry 1 True, REDUCE sym_fb_decl 13 0 2308]),
     (18439, [Entry 1 False, REDUCE sym_fb_decl 13 0 2308]),
     (18441, [Entry 1 True, REDUCE sym_fb_decl 13 0 2576]),
     (18443, [Entry 1 False, REDUCE sym_fb_decl 13 0 2576]),
     (18445, [Entry 1 True, REDUCE sym_fb_decl 13 0 2577]),
     (18447, [Entry 1 False, REDUCE sym_fb_decl 13 0 2577]),
     (18449, [Entry 1 True, REDUCE sym_class_decl 8 0 367]),
     (18451, [Entry 1 False, REDUCE sym_class_decl 8 0 367]),
     (18453, [Entry 1 True, REDUCE sym_fb_decl 13 0 2309]),
     (18455, [Entry 1 False, REDUCE sym_fb_decl 13 0 2309]),
     (18457, [Entry 1 True, REDUCE sym_fb_decl 13 0 2578]),
     (18459, [Entry 1 False, REDUCE sym_fb_decl 13 0 2578]),
     (18461, [Entry 1 True, REDUCE sym_fb_decl 13 0 2579]),
     (18463, [Entry 1 False, REDUCE sym_fb_decl 13 0 2579]),
     (18465, [Entry 1 True, REDUCE sym_class_decl 8 0 311]),
     (18467, [Entry 1 False, REDUCE sym_class_decl 8 0 311]),
     (18469, [Entry 1 True, REDUCE sym_class_decl 8 0 546]),
     (18471, [Entry 1 False, REDUCE sym_class_decl 8 0 546]),
     (18473, [Entry 1 True, REDUCE sym_fb_decl 13 0 2580]),
     (18475, [Entry 1 False, REDUCE sym_fb_decl 13 0 2580]),
     (18477, [Entry 1 True, REDUCE sym_class_decl 9 0 653]),
     (18479, [Entry 1 False, REDUCE sym_class_decl 9 0 653]),
     (18481, [Entry 1 True, REDUCE sym_fb_decl 13 0 2310]),
     (18483, [Entry 1 False, REDUCE sym_fb_decl 13 0 2310]),
     (18485, [Entry 1 True, REDUCE sym_fb_decl 13 0 2581]),
     (18487, [Entry 1 False, REDUCE sym_fb_decl 13 0 2581]),
     (18489, [Entry 1 True, REDUCE sym_fb_decl 13 0 2582]),
     (18491, [Entry 1 False, REDUCE sym_fb_decl 13 0 2582]),
     (18493, [Entry 1 True, REDUCE sym_fb_decl 13 0 2583]),
     (18495, [Entry 1 False, REDUCE sym_fb_decl 13 0 2583]),
     (18497, [Entry 1 True, REDUCE sym_fb_decl 13 0 2584]),
     (18499, [Entry 1 False, REDUCE sym_fb_decl 13 0 2584]),
     (18501, [Entry 1 True, REDUCE sym_fb_decl 13 0 2585]),
     (18503, [Entry 1 False, REDUCE sym_fb_decl 13 0 2585]),
     (18505, [Entry 1 True, REDUCE sym_fb_decl 13 0 2320]),
     (18507, [Entry 1 False, REDUCE sym_fb_decl 13 0 2320]),
     (18509, [Entry 1 True, REDUCE sym_fb_decl 13 0 2586]),
     (18511, [Entry 1 False, REDUCE sym_fb_decl 13 0 2586]),
     (18513, [Entry 1 True, REDUCE sym_fb_decl 13 0 2587]),
     (18515, [Entry 1 False, REDUCE sym_fb_decl 13 0 2587]),
     (18517, [Entry 1 True, REDUCE sym_fb_decl 13 0 2588])]"

lemma ts_parse_actions_61_tiled: "tiled_from 18219 ts_parse_actions_61 \<and> after_runs 18219 ts_parse_actions_61 = 18519"
  unfolding ts_parse_actions_61_def by (simp cong: runs_weak)

lemma ts_parse_actions_61_ok: "list_all (\<lambda>(i, es). group_ok es) ts_parse_actions_61"
  unfolding ts_parse_actions_61_def
  by (simp add: group_ok_simps entry_action_ok_simps del: One_nat_def group_ok.simps cong: list_all_weak)

text \<open>Lines 489871 to 490020.\<close>

definition ts_parse_actions_62 :: "(nat \<times> TSParseActionEntry list) list" where
  "ts_parse_actions_62 =
    [(18519, [Entry 1 False, REDUCE sym_fb_decl 13 0 2588]),
     (18521, [Entry 1 True, REDUCE sym_fb_decl 13 0 2589]),
     (18523, [Entry 1 False, REDUCE sym_fb_decl 13 0 2589]),
     (18525, [Entry 1 True, REDUCE sym_fb_decl 13 0 2590]),
     (18527, [Entry 1 False, REDUCE sym_fb_decl 13 0 2590]),
     (18529, [Entry 1 True, REDUCE sym_fb_decl 13 0 2331]),
     (18531, [Entry 1 False, REDUCE sym_fb_decl 13 0 2331]),
     (18533, [Entry 1 True, REDUCE sym_fb_decl 13 0 2591]),
     (18535, [Entry 1 False, REDUCE sym_fb_decl 13 0 2591]),
     (18537, [Entry 1 True, REDUCE sym_fb_decl 13 0 2592]),
     (18539, [Entry 1 False, REDUCE sym_fb_decl 13 0 2592]),
     (18541, [Entry 1 True, REDUCE sym_fb_decl 13 0 2593]),
     (18543, [Entry 1 False, REDUCE sym_fb_decl 13 0 2593]),
     (18545, [Entry 1 True, REDUCE sym_fb_decl 13 0 2336]),
     (18547, [Entry 1 False, REDUCE sym_fb_decl 13 0 2336]),
     (18549, [Entry 1 True, REDUCE sym_fb_decl 13 0 2594]),
     (18551, [Entry 1 False, REDUCE sym_fb_decl 13 0 2594]),
     (18553, [Entry 1 True, REDUCE sym_fb_decl 13 0 2595]),
     (18555, [Entry 1 False, REDUCE sym_fb_decl 13 0 2595]),
     (18557, [Entry 1 True, REDUCE sym_fb_decl 13 0 2338]),
     (18559, [Entry 1 False, REDUCE sym_fb_decl 13 0 2338]),
     (18561, [Entry 1 True, REDUCE sym_fb_decl 13 0 2596]),
     (18563, [Entry 1 False, REDUCE sym_fb_decl 13 0 2596]),
     (18565, [Entry 1 True, REDUCE sym_fb_decl 13 0 2597]),
     (18567, [Entry 1 False, REDUCE sym_fb_decl 13 0 2597]),
     (18569, [Entry 1 True, REDUCE sym_class_decl 9 0 1032]),
     (18571, [Entry 1 False, REDUCE sym_class_decl 9 0 1032]),
     (18573, [Entry 1 True, REDUCE sym_fb_decl 13 0 2339]),
     (18575, [Entry 1 False, REDUCE sym_fb_decl 13 0 2339]),
     (18577, [Entry 1 True, REDUCE sym_fb_decl 13 0 2598]),
     (18579, [Entry 1 False, REDUCE sym_fb_decl 13 0 2598]),
     (18581, [Entry 1 True, REDUCE sym_fb_decl 13 0 2599]),
     (18583, [Entry 1 False, REDUCE sym_fb_decl 13 0 2599]),
     (18585, [Entry 1 True, REDUCE sym_fb_decl 13 0 2340]),
     (18587, [Entry 1 False, REDUCE sym_fb_decl 13 0 2340]),
     (18589, [Entry 1 True, REDUCE sym_fb_decl 13 0 2600]),
     (18591, [Entry 1 False, REDUCE sym_fb_decl 13 0 2600]),
     (18593, [Entry 1 True, REDUCE sym_fb_decl 13 0 2601]),
     (18595, [Entry 1 False, REDUCE sym_fb_decl 13 0 2601]),
     (18597, [Entry 1 True, REDUCE sym_class_decl 9 0 378]),
     (18599, [Entry 1 False, REDUCE sym_class_decl 9 0 378]),
     (18601, [Entry 1 True, REDUCE sym_fb_decl 13 0 2341]),
     (18603, [Entry 1 False, REDUCE sym_fb_decl 13 0 2341]),
     (18605, [Entry 1 True, REDUCE sym_fb_decl 13 0 2602]),
     (18607, [Entry 1 False, REDUCE sym_fb_decl 13 0 2602]),
     (18609, [Entry 1 True, REDUCE sym_fb_decl 13 0 2603]),
     (18611, [Entry 1 False, REDUCE sym_fb_decl 13 0 2603]),
     (18613, [Entry 1 True, REDUCE sym_class_decl 8 0 637]),
     (18615, [Entry 1 False, REDUCE sym_class_decl 8 0 637]),
     (18617, [Entry 1 True, REDUCE sym_class_decl 8 0 368]),
     (18619, [Entry 1 False, REDUCE sym_class_decl 8 0 368]),
     (18621, [Entry 1 True, REDUCE sym_fb_decl 13 0 2604]),
     (18623, [Entry 1 False, REDUCE sym_fb_decl 13 0 2604]),
     (18625, [Entry 1 True, REDUCE sym_class_decl 8 0 555]),
     (18627, [Entry 1 False, REDUCE sym_class_decl 8 0 555]),
     (18629, [Entry 1 True, REDUCE sym_fb_decl 13 0 2342]),
     (18631, [Entry 1 False, REDUCE sym_fb_decl 13 0 2342]),
     (18633, [Entry 1 True, REDUCE sym_fb_decl 13 0 2605]),
     (18635, [Entry 1 False, REDUCE sym_fb_decl 13 0 2605]),
     (18637, [Entry 1 True, REDUCE sym_fb_decl 13 0 2606]),
     (18639, [Entry 1 False, REDUCE sym_fb_decl 13 0 2606]),
     (18641, [Entry 1 True, REDUCE sym_fb_decl 13 0 2607]),
     (18643, [Entry 1 False, REDUCE sym_fb_decl 13 0 2607]),
     (18645, [Entry 1 True, REDUCE sym_fb_decl 13 0 2608]),
     (18647, [Entry 1 False, REDUCE sym_fb_decl 13 0 2608]),
     (18649, [Entry 1 True, REDUCE sym_fb_decl 13 0 2349]),
     (18651, [Entry 1 False, REDUCE sym_fb_decl 13 0 2349]),
     (18653, [Entry 1 True, REDUCE sym_fb_decl 13 0 2609]),
     (18655, [Entry 1 False, REDUCE sym_fb_decl 13 0 2609]),
     (18657, [Entry 1 True, REDUCE sym_fb_decl 13 0 2610]),
     (18659, [Entry 1 False, REDUCE sym_fb_decl 13 0 2610]),
     (18661, [Entry 1 True, REDUCE sym_class_decl 9 0 1033]),
     (18663, [Entry 1 False, REDUCE sym_class_decl 9 0 1033]),
     (18665, [Entry 1 True, REDUCE sym_fb_decl 13 0 2350]),
     (18667, [Entry 1 False, REDUCE sym_fb_decl 13 0 2350]),
     (18669, [Entry 1 True, REDUCE sym_fb_decl 13 0 2611]),
     (18671, [Entry 1 False, REDUCE sym_fb_decl 13 0 2611]),
     (18673, [Entry 1 True, REDUCE sym_fb_decl 13 0 2612]),
     (18675, [Entry 1 False, REDUCE sym_fb_decl 13 0 2612]),
     (18677, [Entry 1 True, REDUCE sym_func_decl 5 0 95]),
     (18679, [Entry 1 False, REDUCE sym_func_decl 5 0 95]),
     (18681, [Entry 1 True, REDUCE sym_fb_decl 9 0 562]),
     (18683, [Entry 1 False, REDUCE sym_fb_decl 9 0 562]),
     (18685, [Entry 1 True, REDUCE sym_fb_decl 13 0 2613]),
     (18687, [Entry 1 False, REDUCE sym_fb_decl 13 0 2613]),
     (18689, [Entry 1 True, REDUCE sym_class_decl 8 0 318]),
     (18691, [Entry 1 False, REDUCE sym_class_decl 8 0 318]),
     (18693, [Entry 1 True, REDUCE sym_fb_decl 13 0 1979]),
     (18695, [Entry 1 False, REDUCE sym_fb_decl 13 0 1979]),
     (18697, [Entry 1 True, REDUCE sym_fb_decl 13 0 2614]),
     (18699, [Entry 1 False, REDUCE sym_fb_decl 13 0 2614]),
     (18701, [Entry 1 True, REDUCE sym_class_decl 8 0 638]),
     (18703, [Entry 1 False, REDUCE sym_class_decl 8 0 638]),
     (18705, [Entry 1 True, REDUCE sym_class_decl 8 0 74]),
     (18707, [Entry 1 False, REDUCE sym_class_decl 8 0 74]),
     (18709, [Entry 1 True, REDUCE sym_fb_decl 13 0 2615]),
     (18711, [Entry 1 False, REDUCE sym_fb_decl 13 0 2615]),
     (18713, [Entry 1 True, REDUCE sym_class_decl 8 0 562]),
     (18715, [Entry 1 False, REDUCE sym_class_decl 8 0 562]),
     (18717, [Entry 1 True, REDUCE sym_class_decl 9 0 1034]),
     (18719, [Entry 1 False, REDUCE sym_class_decl 9 0 1034]),
     (18721, [Entry 1 True, REDUCE sym_class_decl 8 0 639]),
     (18723, [Entry 1 False, REDUCE sym_class_decl 8 0 639]),
     (18725, [Entry 1 True, REDUCE sym_fb_decl 13 0 2616]),
     (18727, [Entry 1 False, REDUCE sym_fb_decl 13 0 2616]),
     (18729, [Entry 1 True, REDUCE sym_class_decl 8 0 369]),
     (18731, [Entry 1 False, REDUCE sym_class_decl 8 0 369]),
     (18733, [Entry 1 True, REDUCE sym_fb_decl 13 0 2351]),
     (18735, [Entry 1 False, REDUCE sym_fb_decl 13 0 2351]),
     (18737, [Entry 1 True, REDUCE sym_fb_decl 13 0 2617]),
     (18739, [Entry 1 False, REDUCE sym_fb_decl 13 0 2617]),
     (18741, [Entry 1 True, REDUCE sym_fb_decl 13 0 2618]),
     (18743, [Entry 1 False, REDUCE sym_fb_decl 13 0 2618]),
     (18745, [Entry 1 True, REDUCE sym_fb_decl 13 0 2619]),
     (18747, [Entry 1 False, REDUCE sym_fb_decl 13 0 2619]),
     (18749, [Entry 1 True, REDUCE sym_fb_decl 13 0 2356]),
     (18751, [Entry 1 False, REDUCE sym_fb_decl 13 0 2356]),
     (18753, [Entry 1 True, REDUCE sym_fb_decl 13 0 2620]),
     (18755, [Entry 1 False, REDUCE sym_fb_decl 13 0 2620]),
     (18757, [Entry 1 True, REDUCE sym_fb_decl 13 0 2621]),
     (18759, [Entry 1 False, REDUCE sym_fb_decl 13 0 2621]),
     (18761, [Entry 1 True, REDUCE sym_fb_decl 13 0 2622]),
     (18763, [Entry 1 False, REDUCE sym_fb_decl 13 0 2622]),
     (18765, [Entry 1 True, REDUCE sym_fb_decl 13 0 2360]),
     (18767, [Entry 1 False, REDUCE sym_fb_decl 13 0 2360]),
     (18769, [Entry 1 True, REDUCE sym_fb_decl 13 0 2623]),
     (18771, [Entry 1 False, REDUCE sym_fb_decl 13 0 2623]),
     (18773, [Entry 1 True, REDUCE sym_fb_decl 13 0 2624]),
     (18775, [Entry 1 False, REDUCE sym_fb_decl 13 0 2624]),
     (18777, [Entry 1 True, REDUCE sym_fb_decl 13 0 2362]),
     (18779, [Entry 1 False, REDUCE sym_fb_decl 13 0 2362]),
     (18781, [Entry 1 True, REDUCE sym_fb_decl 13 0 2625]),
     (18783, [Entry 1 False, REDUCE sym_fb_decl 13 0 2625]),
     (18785, [Entry 1 True, REDUCE sym_fb_decl 13 0 2626]),
     (18787, [Entry 1 False, REDUCE sym_fb_decl 13 0 2626]),
     (18789, [Entry 1 True, REDUCE sym_class_decl 8 0 323]),
     (18791, [Entry 1 False, REDUCE sym_class_decl 8 0 323]),
     (18793, [Entry 1 True, REDUCE sym_fb_decl 13 0 2363]),
     (18795, [Entry 1 False, REDUCE sym_fb_decl 13 0 2363]),
     (18797, [Entry 1 True, REDUCE sym_fb_decl 13 0 2627]),
     (18799, [Entry 1 False, REDUCE sym_fb_decl 13 0 2627]),
     (18801, [Entry 1 True, REDUCE sym_fb_decl 13 0 2628]),
     (18803, [Entry 1 False, REDUCE sym_fb_decl 13 0 2628]),
     (18805, [Entry 1 True, REDUCE sym_fb_decl 13 0 2629]),
     (18807, [Entry 1 False, REDUCE sym_fb_decl 13 0 2629]),
     (18809, [Entry 1 True, REDUCE sym_fb_decl 13 0 2630]),
     (18811, [Entry 1 False, REDUCE sym_fb_decl 13 0 2630]),
     (18813, [Entry 1 True, REDUCE sym_fb_decl 13 0 2370]),
     (18815, [Entry 1 False, REDUCE sym_fb_decl 13 0 2370]),
     (18817, [Entry 1 True, REDUCE sym_fb_decl 13 0 2631])]"

lemma ts_parse_actions_62_tiled: "tiled_from 18519 ts_parse_actions_62 \<and> after_runs 18519 ts_parse_actions_62 = 18819"
  unfolding ts_parse_actions_62_def by (simp cong: runs_weak)

lemma ts_parse_actions_62_ok: "list_all (\<lambda>(i, es). group_ok es) ts_parse_actions_62"
  unfolding ts_parse_actions_62_def
  by (simp add: group_ok_simps entry_action_ok_simps del: One_nat_def group_ok.simps cong: list_all_weak)

text \<open>Lines 490021 to 490170.\<close>

definition ts_parse_actions_63 :: "(nat \<times> TSParseActionEntry list) list" where
  "ts_parse_actions_63 =
    [(18819, [Entry 1 False, REDUCE sym_fb_decl 13 0 2631]),
     (18821, [Entry 1 True, REDUCE sym_fb_decl 13 0 2632]),
     (18823, [Entry 1 False, REDUCE sym_fb_decl 13 0 2632]),
     (18825, [Entry 1 True, REDUCE sym_fb_decl 13 0 2633]),
     (18827, [Entry 1 False, REDUCE sym_fb_decl 13 0 2633]),
     (18829, [Entry 1 True, REDUCE sym_fb_decl 13 0 2374]),
     (18831, [Entry 1 False, REDUCE sym_fb_decl 13 0 2374]),
     (18833, [Entry 1 True, REDUCE sym_fb_decl 13 0 2634]),
     (18835, [Entry 1 False, REDUCE sym_fb_decl 13 0 2634]),
     (18837, [Entry 1 True, REDUCE sym_fb_decl 13 0 2635]),
     (18839, [Entry 1 False, REDUCE sym_fb_decl 13 0 2635]),
     (18841, [Entry 1 True, REDUCE sym_fb_decl 13 0 2376]),
     (18843, [Entry 1 False, REDUCE sym_fb_decl 13 0 2376]),
     (18845, [Entry 1 True, REDUCE sym_fb_decl 13 0 2636]),
     (18847, [Entry 1 False, REDUCE sym_fb_decl 13 0 2636]),
     (18849, [Entry 1 True, REDUCE sym_fb_decl 13 0 2637]),
     (18851, [Entry 1 False, REDUCE sym_fb_decl 13 0 2637]),
     (18853, [Entry 1 True, REDUCE sym_class_decl 8 0 640]),
     (18855, [Entry 1 False, REDUCE sym_class_decl 8 0 640]),
     (18857, [Entry 1 True, REDUCE sym_fb_decl 13 0 2377]),
     (18859, [Entry 1 False, REDUCE sym_fb_decl 13 0 2377]),
     (18861, [Entry 1 True, REDUCE sym_fb_decl 13 0 2638]),
     (18863, [Entry 1 False, REDUCE sym_fb_decl 13 0 2638]),
     (18865, [Entry 1 True, REDUCE sym_fb_decl 13 0 2639]),
     (18867, [Entry 1 False, REDUCE sym_fb_decl 13 0 2639]),
     (18869, [Entry 1 True, REDUCE sym_fb_decl 13 0 2640]),
     (18871, [Entry 1 False, REDUCE sym_fb_decl 13 0 2640]),
     (18873, [Entry 1 True, REDUCE sym_fb_decl 13 0 2641]),
     (18875, [Entry 1 False, REDUCE sym_fb_decl 13 0 2641]),
     (18877, [Entry 1 True, REDUCE sym_fb_decl 13 0 2642]),
     (18879, [Entry 1 False, REDUCE sym_fb_decl 13 0 2642]),
     (18881, [Entry 1 True, REDUCE sym_fb_decl 13 0 2643]),
     (18883, [Entry 1 False, REDUCE sym_fb_decl 13 0 2643]),
     (18885, [Entry 1 True, REDUCE sym_fb_decl 13 0 2394]),
     (18887, [Entry 1 False, REDUCE sym_fb_decl 13 0 2394]),
     (18889, [Entry 1 True, REDUCE sym_fb_decl 13 0 2644]),
     (18891, [Entry 1 False, REDUCE sym_fb_decl 13 0 2644]),
     (18893, [Entry 1 True, REDUCE sym_fb_decl 13 0 2645]),
     (18895, [Entry 1 False, REDUCE sym_fb_decl 13 0 2645]),
     (18897, [Entry 1 True, REDUCE sym_fb_decl 13 0 2646]),
     (18899, [Entry 1 False, REDUCE sym_fb_decl 13 0 2646]),
     (18901, [Entry 1 True, REDUCE sym_fb_decl 13 0 2647]),
     (18903, [Entry 1 False, REDUCE sym_fb_decl 13 0 2647]),
     (18905, [Entry 1 True, REDUCE sym_fb_decl 13 0 2401]),
     (18907, [Entry 1 False, REDUCE sym_fb_decl 13 0 2401]),
     (18909, [Entry 1 True, REDUCE sym_fb_decl 13 0 2648]),
     (18911, [Entry 1 False, REDUCE sym_fb_decl 13 0 2648]),
     (18913, [Entry 1 True, REDUCE sym_fb_decl 13 0 2649]),
     (18915, [Entry 1 False, REDUCE sym_fb_decl 13 0 2649]),
     (18917, [Entry 1 True, REDUCE sym_fb_decl 13 0 2650]),
     (18919, [Entry 1 False, REDUCE sym_fb_decl 13 0 2650]),
     (18921, [Entry 1 True, REDUCE sym_fb_decl 13 0 2405]),
     (18923, [Entry 1 False, REDUCE sym_fb_decl 13 0 2405]),
     (18925, [Entry 1 True, REDUCE sym_fb_decl 13 0 2651]),
     (18927, [Entry 1 False, REDUCE sym_fb_decl 13 0 2651]),
     (18929, [Entry 1 True, REDUCE sym_fb_decl 13 0 2652]),
     (18931, [Entry 1 False, REDUCE sym_fb_decl 13 0 2652]),
     (18933, [Entry 1 True, REDUCE sym_fb_decl 13 0 2407]),
     (18935, [Entry 1 False, REDUCE sym_fb_decl 13 0 2407]),
     (18937, [Entry 1 True, REDUCE sym_fb_decl 13 0 2653]),
     (18939, [Entry 1 False, REDUCE sym_fb_decl 13 0 2653]),
     (18941, [Entry 1 True, REDUCE sym_fb_decl 13 0 2654]),
     (18943, [Entry 1 False, REDUCE sym_fb_decl 13 0 2654]),
     (18945, [Entry 1 True, REDUCE sym_class_decl 8 0 175]),
     (18947, [Entry 1 False, REDUCE sym_class_decl 8 0 175]),
     (18949, [Entry 1 True, REDUCE sym_fb_decl 13 0 2408]),
     (18951, [Entry 1 False, REDUCE sym_fb_decl 13 0 2408]),
     (18953, [Entry 1 True, REDUCE sym_fb_decl 13 0 2655]),
     (18955, [Entry 1 False, REDUCE sym_fb_decl 13 0 2655]),
     (18957, [Entry 1 True, REDUCE sym_fb_decl 13 0 2656]),
     (18959, [Entry 1 False, REDUCE sym_fb_decl 13 0 2656]),
     (18961, [Entry 1 True, REDUCE sym_fb_decl 13 0 2657]),
     (18963, [Entry 1 False, REDUCE sym_fb_decl 13 0 2657]),
     (18965, [Entry 1 True, REDUCE sym_fb_decl 13 0 2658]),
     (18967, [Entry 1 False, REDUCE sym_fb_decl 13 0 2658]),
     (18969, [Entry 1 True, REDUCE sym_fb_decl 13 0 2659]),
     (18971, [Entry 1 False, REDUCE sym_fb_decl 13 0 2659]),
     (18973, [Entry 1 True, REDUCE sym_fb_decl 13 0 2660]),
     (18975, [Entry 1 False, REDUCE sym_fb_decl 13 0 2660]),
     (18977, [Entry 1 True, REDUCE sym_fb_decl 13 0 2425]),
     (18979, [Entry 1 False, REDUCE sym_fb_decl 13 0 2425]),
     (18981, [Entry 1 True, REDUCE sym_fb_decl 13 0 2661]),
     (18983, [Entry 1 False, REDUCE sym_fb_decl 13 0 2661]),
     (18985, [Entry 1 True, REDUCE sym_fb_decl 13 0 2662]),
     (18987, [Entry 1 False, REDUCE sym_fb_decl 13 0 2662]),
     (18989, [Entry 1 True, REDUCE sym_fb_decl 13 0 2663]),
     (18991, [Entry 1 False, REDUCE sym_fb_decl 13 0 2663]),
     (18993, [Entry 1 True, REDUCE sym_fb_decl 13 0 2429]),
     (18995, [Entry 1 False, REDUCE sym_fb_decl 13 0 2429]),
     (18997, [Entry 1 True, REDUCE sym_fb_decl 13 0 2664]),
     (18999, [Entry 1 False, REDUCE sym_fb_decl 13 0 2664]),
     (19001, [Entry 1 True, REDUCE sym_fb_decl 13 0 2665]),
     (19003, [Entry 1 False, REDUCE sym_fb_decl 13 0 2665]),
     (19005, [Entry 1 True, REDUCE sym_fb_decl 13 0 2431]),
     (19007, [Entry 1 False, REDUCE sym_fb_decl 13 0 2431]),
     (19009, [Entry 1 True, REDUCE sym_fb_decl 13 0 2666]),
     (19011, [Entry 1 False, REDUCE sym_fb_decl 13 0 2666]),
     (19013, [Entry 1 True, REDUCE sym_fb_decl 13 0 2667]),
     (19015, [Entry 1 False, REDUCE sym_fb_decl 13 0 2667]),
     (19017, [Entry 1 True, REDUCE sym_class_decl 8 0 574]),
     (19019, [Entry 1 False, REDUCE sym_class_decl 8 0 574]),
     (19021, [Entry 1 True, REDUCE sym_fb_decl 13 0 2432]),
     (19023, [Entry 1 False, REDUCE sym_fb_decl 13 0 2432]),
     (19025, [Entry 1 True, REDUCE sym_fb_decl 13 0 2668]),
     (19027, [Entry 1 False, REDUCE sym_fb_decl 13 0 2668]),
     (19029, [Entry 1 True, REDUCE sym_fb_decl 13 0 2669]),
     (19031, [Entry 1 False, REDUCE sym_fb_decl 13 0 2669]),
     (19033, [Entry 1 True, REDUCE sym_fb_decl 13 0 2670]),
     (19035, [Entry 1 False, REDUCE sym_fb_decl 13 0 2670]),
     (19037, [Entry 1 True, REDUCE sym_fb_decl 13 0 2438]),
     (19039, [Entry 1 False, REDUCE sym_fb_decl 13 0 2438]),
     (19041, [Entry 1 True, REDUCE sym_fb_decl 13 0 2671]),
     (19043, [Entry 1 False, REDUCE sym_fb_decl 13 0 2671]),
     (19045, [Entry 1 True, REDUCE sym_fb_decl 13 0 2672]),
     (19047, [Entry 1 False, REDUCE sym_fb_decl 13 0 2672]),
     (19049, [Entry 1 True, REDUCE sym_fb_decl 13 0 2440]),
     (19051, [Entry 1 False, REDUCE sym_fb_decl 13 0 2440]),
     (19053, [Entry 1 True, REDUCE sym_fb_decl 13 0 2673]),
     (19055, [Entry 1 False, REDUCE sym_fb_decl 13 0 2673]),
     (19057, [Entry 1 True, REDUCE sym_fb_decl 13 0 2674]),
     (19059, [Entry 1 False, REDUCE sym_fb_decl 13 0 2674]),
     (19061, [Entry 1 True, REDUCE sym_class_decl 9 0 654]),
     (19063, [Entry 1 False, REDUCE sym_class_decl 9 0 654]),
     (19065, [Entry 1 True, REDUCE sym_fb_decl 13 0 2441]),
     (19067, [Entry 1 False, REDUCE sym_fb_decl 13 0 2441]),
     (19069, [Entry 1 True, REDUCE sym_fb_decl 13 0 2675]),
     (19071, [Entry 1 False, REDUCE sym_fb_decl 13 0 2675]),
     (19073, [Entry 1 True, REDUCE sym_fb_decl 13 0 2676]),
     (19075, [Entry 1 False, REDUCE sym_fb_decl 13 0 2676]),
     (19077, [Entry 1 True, REDUCE sym_fb_decl 13 0 2442]),
     (19079, [Entry 1 False, REDUCE sym_fb_decl 13 0 2442]),
     (19081, [Entry 1 True, REDUCE sym_fb_decl 13 0 2677]),
     (19083, [Entry 1 False, REDUCE sym_fb_decl 13 0 2677]),
     (19085, [Entry 1 True, REDUCE sym_fb_decl 13 0 2678]),
     (19087, [Entry 1 False, REDUCE sym_fb_decl 13 0 2678]),
     (19089, [Entry 1 True, REDUCE sym_class_decl 8 0 641]),
     (19091, [Entry 1 False, REDUCE sym_class_decl 8 0 641]),
     (19093, [Entry 1 True, REDUCE sym_fb_decl 13 0 2443]),
     (19095, [Entry 1 False, REDUCE sym_fb_decl 13 0 2443]),
     (19097, [Entry 1 True, REDUCE sym_fb_decl 13 0 2679]),
     (19099, [Entry 1 False, REDUCE sym_fb_decl 13 0 2679]),
     (19101, [Entry 1 True, REDUCE sym_fb_decl 13 0 2680]),
     (19103, [Entry 1 False, REDUCE sym_fb_decl 13 0 2680]),
     (19105, [Entry 1 True, REDUCE sym_class_decl 8 0 370]),
     (19107, [Entry 1 False, REDUCE sym_class_decl 8 0 370]),
     (19109, [Entry 1 True, REDUCE sym_class_decl 8 0 578]),
     (19111, [Entry 1 False, REDUCE sym_class_decl 8 0 578]),
     (19113, [Entry 1 True, REDUCE sym_fb_decl 13 0 2681]),
     (19115, [Entry 1 False, REDUCE sym_fb_decl 13 0 2681]),
     (19117, [Entry 1 True, REDUCE sym_class_decl 9 0 1035])]"

lemma ts_parse_actions_63_tiled: "tiled_from 18819 ts_parse_actions_63 \<and> after_runs 18819 ts_parse_actions_63 = 19119"
  unfolding ts_parse_actions_63_def by (simp cong: runs_weak)

lemma ts_parse_actions_63_ok: "list_all (\<lambda>(i, es). group_ok es) ts_parse_actions_63"
  unfolding ts_parse_actions_63_def
  by (simp add: group_ok_simps entry_action_ok_simps del: One_nat_def group_ok.simps cong: list_all_weak)

text \<open>Lines 490171 to 490320.\<close>

definition ts_parse_actions_64 :: "(nat \<times> TSParseActionEntry list) list" where
  "ts_parse_actions_64 =
    [(19119, [Entry 1 False, REDUCE sym_class_decl 9 0 1035]),
     (19121, [Entry 1 True, REDUCE sym_fb_decl 13 0 2444]),
     (19123, [Entry 1 False, REDUCE sym_fb_decl 13 0 2444]),
     (19125, [Entry 1 True, REDUCE sym_fb_decl 13 0 2682]),
     (19127, [Entry 1 False, REDUCE sym_fb_decl 13 0 2682]),
     (19129, [Entry 1 True, REDUCE sym_fb_decl 13 0 2683]),
     (19131, [Entry 1 False, REDUCE sym_fb_decl 13 0 2683]),
     (19133, [Entry 1 True, REDUCE sym_fb_decl 13 0 2684]),
     (19135, [Entry 1 False, REDUCE sym_fb_decl 13 0 2684]),
     (19137, [Entry 1 True, REDUCE sym_fb_decl 13 0 2685]),
     (19139, [Entry 1 False, REDUCE sym_fb_decl 13 0 2685]),
     (19141, [Entry 1 True, REDUCE sym_fb_decl 13 0 2686]),
     (19143, [Entry 1 False, REDUCE sym_fb_decl 13 0 2686]),
     (19145, [Entry 1 True, REDUCE sym_fb_decl 13 0 2454]),
     (19147, [Entry 1 False, REDUCE sym_fb_decl 13 0 2454]),
     (19149, [Entry 1 True, REDUCE sym_fb_decl 13 0 2687]),
     (19151, [Entry 1 False, REDUCE sym_fb_decl 13 0 2687]),
     (19153, [Entry 1 True, REDUCE sym_fb_decl 13 0 2688]),
     (19155, [Entry 1 False, REDUCE sym_fb_decl 13 0 2688]),
     (19157, [Entry 1 True, REDUCE sym_fb_decl 13 0 2689]),
     (19159, [Entry 1 False, REDUCE sym_fb_decl 13 0 2689]),
     (19161, [Entry 1 True, REDUCE sym_fb_decl 13 0 2690]),
     (19163, [Entry 1 False, REDUCE sym_fb_decl 13 0 2690]),
     (19165, [Entry 1 True, REDUCE sym_fb_decl 13 0 2691]),
     (19167, [Entry 1 False, REDUCE sym_fb_decl 13 0 2691]),
     (19169, [Entry 1 True, REDUCE sym_fb_decl 13 0 2465]),
     (19171, [Entry 1 False, REDUCE sym_fb_decl 13 0 2465]),
     (19173, [Entry 1 True, REDUCE sym_fb_decl 13 0 2692]),
     (19175, [Entry 1 False, REDUCE sym_fb_decl 13 0 2692]),
     (19177, [Entry 1 True, REDUCE sym_fb_decl 13 0 2693]),
     (19179, [Entry 1 False, REDUCE sym_fb_decl 13 0 2693]),
     (19181, [Entry 1 True, REDUCE sym_fb_decl 14 0 2694]),
     (19183, [Entry 1 False, REDUCE sym_fb_decl 14 0 2694]),
     (19185, [Entry 1 True, REDUCE sym_fb_decl 14 0 2695]),
     (19187, [Entry 1 False, REDUCE sym_fb_decl 14 0 2695]),
     (19189, [Entry 1 True, REDUCE sym_fb_decl 14 0 2696]),
     (19191, [Entry 1 False, REDUCE sym_fb_decl 14 0 2696]),
     (19193, [Entry 1 True, REDUCE sym_fb_decl 14 0 2697]),
     (19195, [Entry 1 False, REDUCE sym_fb_decl 14 0 2697]),
     (19197, [Entry 1 True, REDUCE sym_fb_decl 14 0 2483]),
     (19199, [Entry 1 False, REDUCE sym_fb_decl 14 0 2483]),
     (19201, [Entry 1 True, REDUCE sym_fb_decl 14 0 2698]),
     (19203, [Entry 1 False, REDUCE sym_fb_decl 14 0 2698]),
     (19205, [Entry 1 True, REDUCE sym_fb_decl 14 0 2699]),
     (19207, [Entry 1 False, REDUCE sym_fb_decl 14 0 2699]),
     (19209, [Entry 1 True, REDUCE sym_fb_decl 14 0 2700]),
     (19211, [Entry 1 False, REDUCE sym_fb_decl 14 0 2700]),
     (19213, [Entry 1 True, REDUCE sym_fb_decl 14 0 2701]),
     (19215, [Entry 1 False, REDUCE sym_fb_decl 14 0 2701]),
     (19217, [Entry 1 True, REDUCE sym_fb_decl 14 0 2702]),
     (19219, [Entry 1 False, REDUCE sym_fb_decl 14 0 2702]),
     (19221, [Entry 1 True, REDUCE sym_fb_decl 14 0 2496]),
     (19223, [Entry 1 False, REDUCE sym_fb_decl 14 0 2496]),
     (19225, [Entry 1 True, REDUCE sym_fb_decl 14 0 2703]),
     (19227, [Entry 1 False, REDUCE sym_fb_decl 14 0 2703]),
     (19229, [Entry 1 True, REDUCE sym_fb_decl 14 0 2704]),
     (19231, [Entry 1 False, REDUCE sym_fb_decl 14 0 2704]),
     (19233, [Entry 1 True, REDUCE sym_fb_decl 14 0 2705]),
     (19235, [Entry 1 False, REDUCE sym_fb_decl 14 0 2705]),
     (19237, [Entry 1 True, REDUCE sym_fb_decl 14 0 2706]),
     (19239, [Entry 1 False, REDUCE sym_fb_decl 14 0 2706]),
     (19241, [Entry 1 True, REDUCE sym_fb_decl 14 0 2503]),
     (19243, [Entry 1 False, REDUCE sym_fb_decl 14 0 2503]),
     (19245, [Entry 1 True, REDUCE sym_fb_decl 14 0 2707]),
     (19247, [Entry 1 False, REDUCE sym_fb_decl 14 0 2707]),
     (19249, [Entry 1 True, REDUCE sym_fb_decl 14 0 2708]),
     (19251, [Entry 1 False, REDUCE sym_fb_decl 14 0 2708]),
     (19253, [Entry 1 True, REDUCE sym_fb_decl 14 0 2709]),
     (19255, [Entry 1 False, REDUCE sym_fb_decl 14 0 2709]),
     (19257, [Entry 1 True, REDUCE sym_fb_decl 14 0 2507]),
     (19259, [Entry 1 False, REDUCE sym_fb_decl 14 0 2507]),
     (19261, [Entry 1 True, REDUCE sym_fb_decl 14 0 2710]),
     (19263, [Entry 1 False, REDUCE sym_fb_decl 14 0 2710]),
     (19265, [Entry 1 True, REDUCE sym_fb_decl 14 0 2711]),
     (19267, [Entry 1 False, REDUCE sym_fb_decl 14 0 2711]),
     (19269, [Entry 1 True, REDUCE sym_fb_decl 14 0 2509]),
     (19271, [Entry 1 False, REDUCE sym_fb_decl 14 0 2509]),
     (19273, [Entry 1 True, REDUCE sym_fb_decl 14 0 2712]),
     (19275, [Entry 1 False, REDUCE sym_fb_decl 14 0 2712]),
     (19277, [Entry 1 True, REDUCE sym_fb_decl 14 0 2713]),
     (19279, [Entry 1 False, REDUCE sym_fb_decl 14 0 2713]),
     (19281, [Entry 1 True, REDUCE sym_func_decl 5 0 96]),
     (19283, [Entry 1 False, REDUCE sym_func_decl 5 0 96]),
     (19285, [Entry 1 True, REDUCE sym_fb_decl 14 0 2510]),
     (19287, [Entry 1 False, REDUCE sym_fb_decl 14 0 2510]),
     (19289, [Entry 1 True, REDUCE sym_fb_decl 14 0 2714]),
     (19291, [Entry 1 False, REDUCE sym_fb_decl 14 0 2714]),
     (19293, [Entry 1 True, REDUCE sym_fb_decl 14 0 2715]),
     (19295, [Entry 1 False, REDUCE sym_fb_decl 14 0 2715]),
     (19297, [Entry 1 True, REDUCE sym_fb_decl 14 0 2716]),
     (19299, [Entry 1 False, REDUCE sym_fb_decl 14 0 2716]),
     (19301, [Entry 1 True, REDUCE sym_fb_decl 14 0 2717]),
     (19303, [Entry 1 False, REDUCE sym_fb_decl 14 0 2717]),
     (19305, [Entry 1 True, REDUCE sym_fb_decl 14 0 2718]),
     (19307, [Entry 1 False, REDUCE sym_fb_decl 14 0 2718]),
     (19309, [Entry 1 True, REDUCE sym_fb_decl 14 0 2719]),
     (19311, [Entry 1 False, REDUCE sym_fb_decl 14 0 2719]),
     (19313, [Entry 1 True, REDUCE sym_fb_decl 14 0 2720]),
     (19315, [Entry 1 False, REDUCE sym_fb_decl 14 0 2720]),
     (19317, [Entry 1 True, REDUCE sym_fb_decl 14 0 2721]),
     (19319, [Entry 1 False, REDUCE sym_fb_decl 14 0 2721]),
     (19321, [Entry 1 True, REDUCE sym_fb_decl 14 0 2722]),
     (19323, [Entry 1 False, REDUCE sym_fb_decl 14 0 2722]),
     (19325, [Entry 1 True, REDUCE sym_fb_decl 14 0 2542]),
     (19327, [Entry 1 False, REDUCE sym_fb_decl 14 0 2542]),
     (19329, [Entry 1 True, REDUCE sym_fb_decl 14 0 2723]),
     (19331, [Entry 1 False, REDUCE sym_fb_decl 14 0 2723]),
     (19333, [Entry 1 True, REDUCE sym_fb_decl 14 0 2724]),
     (19335, [Entry 1 False, REDUCE sym_fb_decl 14 0 2724]),
     (19337, [Entry 1 True, REDUCE sym_class_decl 14 0 2547]),
     (19339, [Entry 1 False, REDUCE sym_class_decl 14 0 2547]),
     (19341, [Entry 1 True, REDUCE sym_class_decl 14 0 2548]),
     (19343, [Entry 1 False, REDUCE sym_class_decl 14 0 2548]),
     (19345, [Entry 1 True, REDUCE sym_class_decl 14 0 2549]),
     (19347, [Entry 1 False, REDUCE sym_class_decl 14 0 2549]),
     (19349, [Entry 1 True, REDUCE sym_class_decl 14 0 2550]),
     (19351, [Entry 1 False, REDUCE sym_class_decl 14 0 2550]),
     (19353, [Entry 1 True, REDUCE sym_class_decl 14 0 2551]),
     (19355, [Entry 1 False, REDUCE sym_class_decl 14 0 2551]),
     (19357, [Entry 1 True, REDUCE sym_class_decl 14 0 2725]),
     (19359, [Entry 1 False, REDUCE sym_class_decl 14 0 2725]),
     (19361, [Entry 1 True, REDUCE sym_class_decl 14 0 2552]),
     (19363, [Entry 1 False, REDUCE sym_class_decl 14 0 2552]),
     (19365, [Entry 1 True, REDUCE sym_class_decl 14 0 2553]),
     (19367, [Entry 1 False, REDUCE sym_class_decl 14 0 2553]),
     (19369, [Entry 1 True, REDUCE sym_fb_decl 14 0 2727]),
     (19371, [Entry 1 False, REDUCE sym_fb_decl 14 0 2727]),
     (19373, [Entry 1 True, REDUCE sym_fb_decl 14 0 2728]),
     (19375, [Entry 1 False, REDUCE sym_fb_decl 14 0 2728]),
     (19377, [Entry 1 True, REDUCE sym_fb_decl 14 0 2729]),
     (19379, [Entry 1 False, REDUCE sym_fb_decl 14 0 2729]),
     (19381, [Entry 1 True, REDUCE sym_fb_decl 14 0 2566]),
     (19383, [Entry 1 False, REDUCE sym_fb_decl 14 0 2566]),
     (19385, [Entry 1 True, REDUCE sym_fb_decl 14 0 2730]),
     (19387, [Entry 1 False, REDUCE sym_fb_decl 14 0 2730]),
     (19389, [Entry 1 True, REDUCE sym_fb_decl 14 0 2731]),
     (19391, [Entry 1 False, REDUCE sym_fb_decl 14 0 2731]),
     (19393, [Entry 1 True, REDUCE sym_fb_decl 14 0 2732]),
     (19395, [Entry 1 False, REDUCE sym_fb_decl 14 0 2732]),
     (19397, [Entry 1 True, REDUCE sym_fb_decl 14 0 2733]),
     (19399, [Entry 1 False, REDUCE sym_fb_decl 14 0 2733]),
     (19401, [Entry 1 True, REDUCE sym_fb_decl 14 0 2573]),
     (19403, [Entry 1 False, REDUCE sym_fb_decl 14 0 2573]),
     (19405, [Entry 1 True, REDUCE sym_fb_decl 14 0 2734]),
     (19407, [Entry 1 False, REDUCE sym_fb_decl 14 0 2734]),
     (19409, [Entry 1 True, REDUCE sym_fb_decl 14 0 2735]),
     (19411, [Entry 1 False, REDUCE sym_fb_decl 14 0 2735]),
     (19413, [Entry 1 True, REDUCE sym_fb_decl 14 0 2736]),
     (19415, [Entry 1 False, REDUCE sym_fb_decl 14 0 2736]),
     (19417, [Entry 1 True, REDUCE sym_fb_decl 14 0 2577])]"

lemma ts_parse_actions_64_tiled: "tiled_from 19119 ts_parse_actions_64 \<and> after_runs 19119 ts_parse_actions_64 = 19419"
  unfolding ts_parse_actions_64_def by (simp cong: runs_weak)

lemma ts_parse_actions_64_ok: "list_all (\<lambda>(i, es). group_ok es) ts_parse_actions_64"
  unfolding ts_parse_actions_64_def
  by (simp add: group_ok_simps entry_action_ok_simps del: One_nat_def group_ok.simps cong: list_all_weak)

text \<open>Lines 490321 to 490470.\<close>

definition ts_parse_actions_65 :: "(nat \<times> TSParseActionEntry list) list" where
  "ts_parse_actions_65 =
    [(19419, [Entry 1 False, REDUCE sym_fb_decl 14 0 2577]),
     (19421, [Entry 1 True, REDUCE sym_fb_decl 14 0 2737]),
     (19423, [Entry 1 False, REDUCE sym_fb_decl 14 0 2737]),
     (19425, [Entry 1 True, REDUCE sym_fb_decl 14 0 2738]),
     (19427, [Entry 1 False, REDUCE sym_fb_decl 14 0 2738]),
     (19429, [Entry 1 True, REDUCE sym_fb_decl 14 0 2579]),
     (19431, [Entry 1 False, REDUCE sym_fb_decl 14 0 2579]),
     (19433, [Entry 1 True, REDUCE sym_fb_decl 14 0 2739]),
     (19435, [Entry 1 False, REDUCE sym_fb_decl 14 0 2739]),
     (19437, [Entry 1 True, REDUCE sym_fb_decl 14 0 2740]),
     (19439, [Entry 1 False, REDUCE sym_fb_decl 14 0 2740]),
     (19441, [Entry 1 True, REDUCE sym_fb_decl 9 0 916]),
     (19443, [Entry 1 False, REDUCE sym_fb_decl 9 0 916]),
     (19445, [Entry 1 True, REDUCE sym_fb_decl 14 0 2580]),
     (19447, [Entry 1 False, REDUCE sym_fb_decl 14 0 2580]),
     (19449, [Entry 1 True, REDUCE sym_fb_decl 14 0 2741]),
     (19451, [Entry 1 False, REDUCE sym_fb_decl 14 0 2741]),
     (19453, [Entry 1 True, REDUCE sym_fb_decl 14 0 2742]),
     (19455, [Entry 1 False, REDUCE sym_fb_decl 14 0 2742]),
     (19457, [Entry 1 True, REDUCE sym_fb_decl 14 0 2743]),
     (19459, [Entry 1 False, REDUCE sym_fb_decl 14 0 2743]),
     (19461, [Entry 1 True, REDUCE sym_fb_decl 14 0 2744]),
     (19463, [Entry 1 False, REDUCE sym_fb_decl 14 0 2744]),
     (19465, [Entry 1 True, REDUCE sym_fb_decl 14 0 2745]),
     (19467, [Entry 1 False, REDUCE sym_fb_decl 14 0 2745]),
     (19469, [Entry 1 True, REDUCE sym_fb_decl 14 0 2746]),
     (19471, [Entry 1 False, REDUCE sym_fb_decl 14 0 2746]),
     (19473, [Entry 1 True, REDUCE sym_fb_decl 14 0 2597]),
     (19475, [Entry 1 False, REDUCE sym_fb_decl 14 0 2597]),
     (19477, [Entry 1 True, REDUCE sym_fb_decl 14 0 2747]),
     (19479, [Entry 1 False, REDUCE sym_fb_decl 14 0 2747]),
     (19481, [Entry 1 True, REDUCE sym_fb_decl 14 0 2748]),
     (19483, [Entry 1 False, REDUCE sym_fb_decl 14 0 2748]),
     (19485, [Entry 1 True, REDUCE sym_fb_decl 14 0 2749]),
     (19487, [Entry 1 False, REDUCE sym_fb_decl 14 0 2749]),
     (19489, [Entry 1 True, REDUCE sym_fb_decl 14 0 2601]),
     (19491, [Entry 1 False, REDUCE sym_fb_decl 14 0 2601]),
     (19493, [Entry 1 True, REDUCE sym_fb_decl 14 0 2750]),
     (19495, [Entry 1 False, REDUCE sym_fb_decl 14 0 2750]),
     (19497, [Entry 1 True, REDUCE sym_fb_decl 14 0 2751]),
     (19499, [Entry 1 False, REDUCE sym_fb_decl 14 0 2751]),
     (19501, [Entry 1 True, REDUCE sym_fb_decl 14 0 2603]),
     (19503, [Entry 1 False, REDUCE sym_fb_decl 14 0 2603]),
     (19505, [Entry 1 True, REDUCE sym_fb_decl 14 0 2752]),
     (19507, [Entry 1 False, REDUCE sym_fb_decl 14 0 2752]),
     (19509, [Entry 1 True, REDUCE sym_fb_decl 14 0 2753]),
     (19511, [Entry 1 False, REDUCE sym_fb_decl 14 0 2753]),
     (19513, [Entry 1 True, REDUCE sym_class_decl 8 0 327]),
     (19515, [Entry 1 False, REDUCE sym_class_decl 8 0 327]),
     (19517, [Entry 1 True, REDUCE sym_fb_decl 14 0 2604]),
     (19519, [Entry 1 False, REDUCE sym_fb_decl 14 0 2604]),
     (19521, [Entry 1 True, REDUCE sym_fb_decl 14 0 2754]),
     (19523, [Entry 1 False, REDUCE sym_fb_decl 14 0 2754]),
     (19525, [Entry 1 True, REDUCE sym_fb_decl 14 0 2755]),
     (19527, [Entry 1 False, REDUCE sym_fb_decl 14 0 2755]),
     (19529, [Entry 1 True, REDUCE sym_fb_decl 14 0 2756]),
     (19531, [Entry 1 False, REDUCE sym_fb_decl 14 0 2756]),
     (19533, [Entry 1 True, REDUCE sym_fb_decl 14 0 2610]),
     (19535, [Entry 1 False, REDUCE sym_fb_decl 14 0 2610]),
     (19537, [Entry 1 True, REDUCE sym_fb_decl 14 0 2757]),
     (19539, [Entry 1 False, REDUCE sym_fb_decl 14 0 2757]),
     (19541, [Entry 1 True, REDUCE sym_fb_decl 14 0 2758]),
     (19543, [Entry 1 False, REDUCE sym_fb_decl 14 0 2758]),
     (19545, [Entry 1 True, REDUCE sym_fb_decl 14 0 2612]),
     (19547, [Entry 1 False, REDUCE sym_fb_decl 14 0 2612]),
     (19549, [Entry 1 True, REDUCE sym_fb_decl 14 0 2759]),
     (19551, [Entry 1 False, REDUCE sym_fb_decl 14 0 2759]),
     (19553, [Entry 1 True, REDUCE sym_fb_decl 14 0 2760]),
     (19555, [Entry 1 False, REDUCE sym_fb_decl 14 0 2760]),
     (19557, [Entry 1 True, REDUCE sym_class_decl 8 0 642]),
     (19559, [Entry 1 False, REDUCE sym_class_decl 8 0 642]),
     (19561, [Entry 1 True, REDUCE sym_fb_decl 14 0 2613]),
     (19563, [Entry 1 False, REDUCE sym_fb_decl 14 0 2613]),
     (19565, [Entry 1 True, REDUCE sym_fb_decl 14 0 2761]),
     (19567, [Entry 1 False, REDUCE sym_fb_decl 14 0 2761]),
     (19569, [Entry 1 True, REDUCE sym_fb_decl 14 0 2762]),
     (19571, [Entry 1 False, REDUCE sym_fb_decl 14 0 2762]),
     (19573, [Entry 1 True, REDUCE sym_fb_decl 14 0 2614]),
     (19575, [Entry 1 False, REDUCE sym_fb_decl 14 0 2614]),
     (19577, [Entry 1 True, REDUCE sym_fb_decl 14 0 2763]),
     (19579, [Entry 1 False, REDUCE sym_fb_decl 14 0 2763]),
     (19581, [Entry 1 True, REDUCE sym_fb_decl 14 0 2764]),
     (19583, [Entry 1 False, REDUCE sym_fb_decl 14 0 2764]),
     (19585, [Entry 1 True, REDUCE sym_fb_decl 7 0 350]),
     (19587, [Entry 1 False, REDUCE sym_fb_decl 7 0 350]),
     (19589, [Entry 1 True, REDUCE sym_fb_decl 14 0 2615]),
     (19591, [Entry 1 False, REDUCE sym_fb_decl 14 0 2615]),
     (19593, [Entry 1 True, REDUCE sym_fb_decl 14 0 2765]),
     (19595, [Entry 1 False, REDUCE sym_fb_decl 14 0 2765]),
     (19597, [Entry 1 True, REDUCE sym_fb_decl 14 0 2766]),
     (19599, [Entry 1 False, REDUCE sym_fb_decl 14 0 2766]),
     (19601, [Entry 1 True, REDUCE sym_class_decl 8 0 176]),
     (19603, [Entry 1 False, REDUCE sym_class_decl 8 0 176]),
     (19605, [Entry 1 True, REDUCE sym_class_decl 8 0 585]),
     (19607, [Entry 1 False, REDUCE sym_class_decl 8 0 585]),
     (19609, [Entry 1 True, REDUCE sym_fb_decl 14 0 2767]),
     (19611, [Entry 1 False, REDUCE sym_fb_decl 14 0 2767]),
     (19613, [Entry 1 True, REDUCE sym_fb_decl 9 0 917]),
     (19615, [Entry 1 False, REDUCE sym_fb_decl 9 0 917]),
     (19617, [Entry 1 True, REDUCE sym_fb_decl 14 0 2616]),
     (19619, [Entry 1 False, REDUCE sym_fb_decl 14 0 2616]),
     (19621, [Entry 1 True, REDUCE sym_fb_decl 14 0 2768]),
     (19623, [Entry 1 False, REDUCE sym_fb_decl 14 0 2768]),
     (19625, [Entry 1 True, REDUCE sym_fb_decl 14 0 2769]),
     (19627, [Entry 1 False, REDUCE sym_fb_decl 14 0 2769]),
     (19629, [Entry 1 True, REDUCE sym_fb_decl 14 0 2770]),
     (19631, [Entry 1 False, REDUCE sym_fb_decl 14 0 2770]),
     (19633, [Entry 1 True, REDUCE sym_fb_decl 14 0 2771]),
     (19635, [Entry 1 False, REDUCE sym_fb_decl 14 0 2771]),
     (19637, [Entry 1 True, REDUCE sym_fb_decl 14 0 2772]),
     (19639, [Entry 1 False, REDUCE sym_fb_decl 14 0 2772]),
     (19641, [Entry 1 True, REDUCE sym_fb_decl 14 0 2626]),
     (19643, [Entry 1 False, REDUCE sym_fb_decl 14 0 2626]),
     (19645, [Entry 1 True, REDUCE sym_fb_decl 14 0 2773]),
     (19647, [Entry 1 False, REDUCE sym_fb_decl 14 0 2773]),
     (19649, [Entry 1 True, REDUCE sym_fb_decl 14 0 2774]),
     (19651, [Entry 1 False, REDUCE sym_fb_decl 14 0 2774]),
     (19653, [Entry 1 True, REDUCE sym_fb_decl 14 0 2775]),
     (19655, [Entry 1 False, REDUCE sym_fb_decl 14 0 2775]),
     (19657, [Entry 1 True, REDUCE sym_fb_decl 14 0 2776]),
     (19659, [Entry 1 False, REDUCE sym_fb_decl 14 0 2776]),
     (19661, [Entry 1 True, REDUCE sym_fb_decl 14 0 2777]),
     (19663, [Entry 1 False, REDUCE sym_fb_decl 14 0 2777]),
     (19665, [Entry 1 True, REDUCE sym_fb_decl 14 0 2637]),
     (19667, [Entry 1 False, REDUCE sym_fb_decl 14 0 2637]),
     (19669, [Entry 1 True, REDUCE sym_fb_decl 14 0 2778]),
     (19671, [Entry 1 False, REDUCE sym_fb_decl 14 0 2778]),
     (19673, [Entry 1 True, REDUCE sym_fb_decl 14 0 2779]),
     (19675, [Entry 1 False, REDUCE sym_fb_decl 14 0 2779]),
     (19677, [Entry 1 True, REDUCE sym_fb_decl 14 0 2780]),
     (19679, [Entry 1 False, REDUCE sym_fb_decl 14 0 2780]),
     (19681, [Entry 1 True, REDUCE sym_fb_decl 14 0 2781]),
     (19683, [Entry 1 False, REDUCE sym_fb_decl 14 0 2781]),
     (19685, [Entry 1 True, REDUCE sym_fb_decl 14 0 2782]),
     (19687, [Entry 1 False, REDUCE sym_fb_decl 14 0 2782]),
     (19689, [Entry 1 True, REDUCE sym_fb_decl 14 0 2783]),
     (19691, [Entry 1 False, REDUCE sym_fb_decl 14 0 2783]),
     (19693, [Entry 1 True, REDUCE sym_fb_decl 14 0 2654]),
     (19695, [Entry 1 False, REDUCE sym_fb_decl 14 0 2654]),
     (19697, [Entry 1 True, REDUCE sym_fb_decl 14 0 2784]),
     (19699, [Entry 1 False, REDUCE sym_fb_decl 14 0 2784]),
     (19701, [Entry 1 True, REDUCE sym_fb_decl 14 0 2785]),
     (19703, [Entry 1 False, REDUCE sym_fb_decl 14 0 2785]),
     (19705, [Entry 1 True, REDUCE sym_fb_decl 14 0 2786]),
     (19707, [Entry 1 False, REDUCE sym_fb_decl 14 0 2786]),
     (19709, [Entry 1 True, REDUCE sym_fb_decl 14 0 2787]),
     (19711, [Entry 1 False, REDUCE sym_fb_decl 14 0 2787]),
     (19713, [Entry 1 True, REDUCE sym_fb_decl 14 0 2788]),
     (19715, [Entry 1 False, REDUCE sym_fb_decl 14 0 2788]),
     (19717, [Entry 1 True, REDUCE sym_fb_decl 14 0 2667])]"

lemma ts_parse_actions_65_tiled: "tiled_from 19419 ts_parse_actions_65 \<and> after_runs 19419 ts_parse_actions_65 = 19719"
  unfolding ts_parse_actions_65_def by (simp cong: runs_weak)

lemma ts_parse_actions_65_ok: "list_all (\<lambda>(i, es). group_ok es) ts_parse_actions_65"
  unfolding ts_parse_actions_65_def
  by (simp add: group_ok_simps entry_action_ok_simps del: One_nat_def group_ok.simps cong: list_all_weak)

text \<open>Lines 490471 to 490620.\<close>

definition ts_parse_actions_66 :: "(nat \<times> TSParseActionEntry list) list" where
  "ts_parse_actions_66 =
    [(19719, [Entry 1 False, REDUCE sym_fb_decl 14 0 2667]),
     (19721, [Entry 1 True, REDUCE sym_fb_decl 14 0 2789]),
     (19723, [Entry 1 False, REDUCE sym_fb_decl 14 0 2789]),
     (19725, [Entry 1 True, REDUCE sym_fb_decl 14 0 2790]),
     (19727, [Entry 1 False, REDUCE sym_fb_decl 14 0 2790]),
     (19729, [Entry 1 True, REDUCE sym_fb_decl 14 0 2791]),
     (19731, [Entry 1 False, REDUCE sym_fb_decl 14 0 2791]),
     (19733, [Entry 1 True, REDUCE sym_fb_decl 14 0 2792]),
     (19735, [Entry 1 False, REDUCE sym_fb_decl 14 0 2792]),
     (19737, [Entry 1 True, REDUCE sym_fb_decl 14 0 2674]),
     (19739, [Entry 1 False, REDUCE sym_fb_decl 14 0 2674]),
     (19741, [Entry 1 True, REDUCE sym_fb_decl 14 0 2793]),
     (19743, [Entry 1 False, REDUCE sym_fb_decl 14 0 2793]),
     (19745, [Entry 1 True, REDUCE sym_fb_decl 14 0 2794]),
     (19747, [Entry 1 False, REDUCE sym_fb_decl 14 0 2794]),
     (19749, [Entry 1 True, REDUCE sym_fb_decl 14 0 2795]),
     (19751, [Entry 1 False, REDUCE sym_fb_decl 14 0 2795]),
     (19753, [Entry 1 True, REDUCE sym_fb_decl 14 0 2678]),
     (19755, [Entry 1 False, REDUCE sym_fb_decl 14 0 2678]),
     (19757, [Entry 1 True, REDUCE sym_fb_decl 14 0 2796]),
     (19759, [Entry 1 False, REDUCE sym_fb_decl 14 0 2796]),
     (19761, [Entry 1 True, REDUCE sym_fb_decl 14 0 2797]),
     (19763, [Entry 1 False, REDUCE sym_fb_decl 14 0 2797]),
     (19765, [Entry 1 True, REDUCE sym_fb_decl 14 0 2680]),
     (19767, [Entry 1 False, REDUCE sym_fb_decl 14 0 2680]),
     (19769, [Entry 1 True, REDUCE sym_fb_decl 14 0 2798]),
     (19771, [Entry 1 False, REDUCE sym_fb_decl 14 0 2798]),
     (19773, [Entry 1 True, REDUCE sym_fb_decl 14 0 2799]),
     (19775, [Entry 1 False, REDUCE sym_fb_decl 14 0 2799]),
     (19777, [Entry 1 True, REDUCE sym_class_decl 9 0 655]),
     (19779, [Entry 1 False, REDUCE sym_class_decl 9 0 655]),
     (19781, [Entry 1 True, REDUCE sym_fb_decl 14 0 2681]),
     (19783, [Entry 1 False, REDUCE sym_fb_decl 14 0 2681]),
     (19785, [Entry 1 True, REDUCE sym_fb_decl 14 0 2800]),
     (19787, [Entry 1 False, REDUCE sym_fb_decl 14 0 2800]),
     (19789, [Entry 1 True, REDUCE sym_fb_decl 14 0 2801]),
     (19791, [Entry 1 False, REDUCE sym_fb_decl 14 0 2801]),
     (19793, [Entry 1 True, REDUCE sym_fb_decl 14 0 2802]),
     (19795, [Entry 1 False, REDUCE sym_fb_decl 14 0 2802]),
     (19797, [Entry 1 True, REDUCE sym_fb_decl 14 0 2803]),
     (19799, [Entry 1 False, REDUCE sym_fb_decl 14 0 2803]),
     (19801, [Entry 1 True, REDUCE sym_fb_decl 15 0 2804]),
     (19803, [Entry 1 False, REDUCE sym_fb_decl 15 0 2804]),
     (19805, [Entry 1 True, REDUCE sym_fb_decl 15 0 2805]),
     (19807, [Entry 1 False, REDUCE sym_fb_decl 15 0 2805]),
     (19809, [Entry 1 True, REDUCE sym_fb_decl 15 0 2806]),
     (19811, [Entry 1 False, REDUCE sym_fb_decl 15 0 2806]),
     (19813, [Entry 1 True, REDUCE sym_fb_decl 15 0 2807]),
     (19815, [Entry 1 False, REDUCE sym_fb_decl 15 0 2807]),
     (19817, [Entry 1 True, REDUCE sym_fb_decl 15 0 2808]),
     (19819, [Entry 1 False, REDUCE sym_fb_decl 15 0 2808]),
     (19821, [Entry 1 True, REDUCE sym_fb_decl 15 0 2713]),
     (19823, [Entry 1 False, REDUCE sym_fb_decl 15 0 2713]),
     (19825, [Entry 1 True, REDUCE sym_fb_decl 15 0 2809]),
     (19827, [Entry 1 False, REDUCE sym_fb_decl 15 0 2809]),
     (19829, [Entry 1 True, REDUCE sym_fb_decl 15 0 2810]),
     (19831, [Entry 1 False, REDUCE sym_fb_decl 15 0 2810]),
     (19833, [Entry 1 True, REDUCE sym_fb_decl 15 0 2811]),
     (19835, [Entry 1 False, REDUCE sym_fb_decl 15 0 2811]),
     (19837, [Entry 1 True, REDUCE sym_class_decl 15 0 2725]),
     (19839, [Entry 1 False, REDUCE sym_class_decl 15 0 2725]),
     (19841, [Entry 1 True, REDUCE sym_fb_decl 15 0 2812]),
     (19843, [Entry 1 False, REDUCE sym_fb_decl 15 0 2812]),
     (19845, [Entry 1 True, REDUCE sym_fb_decl 15 0 2813]),
     (19847, [Entry 1 False, REDUCE sym_fb_decl 15 0 2813]),
     (19849, [Entry 1 True, REDUCE sym_fb_decl 15 0 2814]),
     (19851, [Entry 1 False, REDUCE sym_fb_decl 15 0 2814]),
     (19853, [Entry 1 True, REDUCE sym_fb_decl 15 0 2815]),
     (19855, [Entry 1 False, REDUCE sym_fb_decl 15 0 2815]),
     (19857, [Entry 1 True, REDUCE sym_fb_decl 15 0 2740]),
     (19859, [Entry 1 False, REDUCE sym_fb_decl 15 0 2740]),
     (19861, [Entry 1 True, REDUCE sym_fb_decl 15 0 2816]),
     (19863, [Entry 1 False, REDUCE sym_fb_decl 15 0 2816]),
     (19865, [Entry 1 True, REDUCE sym_fb_decl 15 0 2817]),
     (19867, [Entry 1 False, REDUCE sym_fb_decl 15 0 2817]),
     (19869, [Entry 1 True, REDUCE sym_fb_decl 15 0 2818]),
     (19871, [Entry 1 False, REDUCE sym_fb_decl 15 0 2818]),
     (19873, [Entry 1 True, REDUCE sym_fb_decl 15 0 2819]),
     (19875, [Entry 1 False, REDUCE sym_fb_decl 15 0 2819]),
     (19877, [Entry 1 True, REDUCE sym_fb_decl 15 0 2820]),
     (19879, [Entry 1 False, REDUCE sym_fb_decl 15 0 2820]),
     (19881, [Entry 1 True, REDUCE sym_fb_decl 15 0 2753]),
     (19883, [Entry 1 False, REDUCE sym_fb_decl 15 0 2753]),
     (19885, [Entry 1 True, REDUCE sym_fb_decl 15 0 2821]),
     (19887, [Entry 1 False, REDUCE sym_fb_decl 15 0 2821]),
     (19889, [Entry 1 True, REDUCE sym_fb_decl 15 0 2822]),
     (19891, [Entry 1 False, REDUCE sym_fb_decl 15 0 2822]),
     (19893, [Entry 1 True, REDUCE sym_fb_decl 15 0 2823]),
     (19895, [Entry 1 False, REDUCE sym_fb_decl 15 0 2823]),
     (19897, [Entry 1 True, REDUCE sym_fb_decl 15 0 2824]),
     (19899, [Entry 1 False, REDUCE sym_fb_decl 15 0 2824]),
     (19901, [Entry 1 True, REDUCE sym_fb_decl 15 0 2760]),
     (19903, [Entry 1 False, REDUCE sym_fb_decl 15 0 2760]),
     (19905, [Entry 1 True, REDUCE sym_fb_decl 15 0 2825]),
     (19907, [Entry 1 False, REDUCE sym_fb_decl 15 0 2825]),
     (19909, [Entry 1 True, REDUCE sym_fb_decl 15 0 2826]),
     (19911, [Entry 1 False, REDUCE sym_fb_decl 15 0 2826]),
     (19913, [Entry 1 True, REDUCE sym_fb_decl 15 0 2827]),
     (19915, [Entry 1 False, REDUCE sym_fb_decl 15 0 2827]),
     (19917, [Entry 1 True, REDUCE sym_fb_decl 15 0 2764]),
     (19919, [Entry 1 False, REDUCE sym_fb_decl 15 0 2764]),
     (19921, [Entry 1 True, REDUCE sym_fb_decl 15 0 2828]),
     (19923, [Entry 1 False, REDUCE sym_fb_decl 15 0 2828]),
     (19925, [Entry 1 True, REDUCE sym_fb_decl 15 0 2829]),
     (19927, [Entry 1 False, REDUCE sym_fb_decl 15 0 2829]),
     (19929, [Entry 1 True, REDUCE sym_fb_decl 15 0 2766]),
     (19931, [Entry 1 False, REDUCE sym_fb_decl 15 0 2766]),
     (19933, [Entry 1 True, REDUCE sym_fb_decl 15 0 2830]),
     (19935, [Entry 1 False, REDUCE sym_fb_decl 15 0 2830]),
     (19937, [Entry 1 True, REDUCE sym_fb_decl 15 0 2831]),
     (19939, [Entry 1 False, REDUCE sym_fb_decl 15 0 2831]),
     (19941, [Entry 1 True, REDUCE sym_class_decl 9 0 1036]),
     (19943, [Entry 1 False, REDUCE sym_class_decl 9 0 1036]),
     (19945, [Entry 1 True, REDUCE sym_fb_decl 15 0 2767]),
     (19947, [Entry 1 False, REDUCE sym_fb_decl 15 0 2767]),
     (19949, [Entry 1 True, REDUCE sym_fb_decl 15 0 2832]),
     (19951, [Entry 1 False, REDUCE sym_fb_decl 15 0 2832]),
     (19953, [Entry 1 True, REDUCE sym_fb_decl 15 0 2833]),
     (19955, [Entry 1 False, REDUCE sym_fb_decl 15 0 2833]),
     (19957, [Entry 1 True, REDUCE sym_fb_decl 15 0 2834]),
     (19959, [Entry 1 False, REDUCE sym_fb_decl 15 0 2834]),
     (19961, [Entry 1 True, REDUCE sym_fb_decl 15 0 2835]),
     (19963, [Entry 1 False, REDUCE sym_fb_decl 15 0 2835]),
     (19965, [Entry 1 True, REDUCE sym_fb_decl 15 0 2836]),
     (19967, [Entry 1 False, REDUCE sym_fb_decl 15 0 2836]),
     (19969, [Entry 1 True, REDUCE sym_fb_decl 15 0 2837]),
     (19971, [Entry 1 False, REDUCE sym_fb_decl 15 0 2837]),
     (19973, [Entry 1 True, REDUCE sym_fb_decl 15 0 2838]),
     (19975, [Entry 1 False, REDUCE sym_fb_decl 15 0 2838]),
     (19977, [Entry 1 True, REDUCE sym_fb_decl 15 0 2839]),
     (19979, [Entry 1 False, REDUCE sym_fb_decl 15 0 2839]),
     (19981, [Entry 1 True, REDUCE sym_fb_decl 15 0 2840]),
     (19983, [Entry 1 False, REDUCE sym_fb_decl 15 0 2840]),
     (19985, [Entry 1 True, REDUCE sym_fb_decl 15 0 2799]),
     (19987, [Entry 1 False, REDUCE sym_fb_decl 15 0 2799]),
     (19989, [Entry 1 True, REDUCE sym_fb_decl 15 0 2841]),
     (19991, [Entry 1 False, REDUCE sym_fb_decl 15 0 2841]),
     (19993, [Entry 1 True, REDUCE sym_fb_decl 15 0 2842]),
     (19995, [Entry 1 False, REDUCE sym_fb_decl 15 0 2842]),
     (19997, [Entry 1 True, REDUCE sym_fb_decl 16 0 2843]),
     (19999, [Entry 1 False, REDUCE sym_fb_decl 16 0 2843]),
     (20001, [Entry 1 True, REDUCE sym_fb_decl 16 0 2844]),
     (20003, [Entry 1 False, REDUCE sym_fb_decl 16 0 2844]),
     (20005, [Entry 1 True, REDUCE sym_fb_decl 16 0 2845]),
     (20007, [Entry 1 False, REDUCE sym_fb_decl 16 0 2845]),
     (20009, [Entry 1 True, REDUCE sym_fb_decl 16 0 2846]),
     (20011, [Entry 1 False, REDUCE sym_fb_decl 16 0 2846]),
     (20013, [Entry 1 True, REDUCE sym_fb_decl 16 0 2847]),
     (20015, [Entry 1 False, REDUCE sym_fb_decl 16 0 2847]),
     (20017, [Entry 1 True, REDUCE sym_fb_decl 16 0 2848])]"

lemma ts_parse_actions_66_tiled: "tiled_from 19719 ts_parse_actions_66 \<and> after_runs 19719 ts_parse_actions_66 = 20019"
  unfolding ts_parse_actions_66_def by (simp cong: runs_weak)

lemma ts_parse_actions_66_ok: "list_all (\<lambda>(i, es). group_ok es) ts_parse_actions_66"
  unfolding ts_parse_actions_66_def
  by (simp add: group_ok_simps entry_action_ok_simps del: One_nat_def group_ok.simps cong: list_all_weak)

text \<open>Lines 490621 to 490770.\<close>

definition ts_parse_actions_67 :: "(nat \<times> TSParseActionEntry list) list" where
  "ts_parse_actions_67 =
    [(20019, [Entry 1 False, REDUCE sym_fb_decl 16 0 2848]),
     (20021, [Entry 1 True, REDUCE sym_fb_decl 16 0 2831]),
     (20023, [Entry 1 False, REDUCE sym_fb_decl 16 0 2831]),
     (20025, [Entry 1 True, REDUCE sym_fb_decl 16 0 2849]),
     (20027, [Entry 1 False, REDUCE sym_fb_decl 16 0 2849]),
     (20029, [Entry 1 True, REDUCE sym_fb_decl 16 0 2850]),
     (20031, [Entry 1 False, REDUCE sym_fb_decl 16 0 2850]),
     (20033, [Entry 1 True, REDUCE sym_fb_decl 16 0 2851]),
     (20035, [Entry 1 False, REDUCE sym_fb_decl 16 0 2851]),
     (20037, [Entry 1 True, REDUCE sym_fb_decl 17 0 2853]),
     (20039, [Entry 1 False, REDUCE sym_fb_decl 17 0 2853]),
     (20041, [Entry 1 True, REDUCE sym_fb_decl 7 0 351]),
     (20043, [Entry 1 False, REDUCE sym_fb_decl 7 0 351]),
     (20045, [Entry 1 True, REDUCE sym_class_decl 9 0 379]),
     (20047, [Entry 1 False, REDUCE sym_class_decl 9 0 379]),
     (20049, [Entry 1 True, REDUCE sym_class_decl 8 0 643]),
     (20051, [Entry 1 False, REDUCE sym_class_decl 8 0 643]),
     (20053, [Entry 1 True, REDUCE sym_class_decl 8 0 371]),
     (20055, [Entry 1 False, REDUCE sym_class_decl 8 0 371]),
     (20057, [Entry 1 True, REDUCE sym_class_decl 8 0 336]),
     (20059, [Entry 1 False, REDUCE sym_class_decl 8 0 336]),
     (20061, [Entry 1 True, REDUCE sym_class_decl 8 0 594]),
     (20063, [Entry 1 False, REDUCE sym_class_decl 8 0 594]),
     (20065, [Entry 1 True, REDUCE sym_class_decl 9 0 1037]),
     (20067, [Entry 1 False, REDUCE sym_class_decl 9 0 1037]),
     (20069, [Entry 1 True, REDUCE sym_fb_decl 9 0 541]),
     (20071, [Entry 1 False, REDUCE sym_fb_decl 9 0 541]),
     (20073, [Entry 1 True, REDUCE sym_fb_decl 9 0 563]),
     (20075, [Entry 1 False, REDUCE sym_fb_decl 9 0 563]),
     (20077, [Entry 1 True, REDUCE sym_class_decl 8 0 644]),
     (20079, [Entry 1 False, REDUCE sym_class_decl 8 0 644]),
     (20081, [Entry 1 True, REDUCE sym_class_decl 8 0 372]),
     (20083, [Entry 1 False, REDUCE sym_class_decl 8 0 372]),
     (20085, [Entry 1 True, REDUCE sym_class_decl 8 0 343]),
     (20087, [Entry 1 False, REDUCE sym_class_decl 8 0 343]),
     (20089, [Entry 1 True, REDUCE sym_class_decl 8 0 645]),
     (20091, [Entry 1 False, REDUCE sym_class_decl 8 0 645]),
     (20093, [Entry 1 True, REDUCE sym_class_decl 8 0 373]),
     (20095, [Entry 1 False, REDUCE sym_class_decl 8 0 373]),
     (20097, [Entry 1 True, REDUCE sym_class_decl 8 0 374]),
     (20099, [Entry 1 False, REDUCE sym_class_decl 8 0 374]),
     (20101, [Entry 1 True, REDUCE sym_class_decl 8 0 646]),
     (20103, [Entry 1 False, REDUCE sym_class_decl 8 0 646]),
     (20105, [Entry 1 True, REDUCE sym_class_decl 8 0 204]),
     (20107, [Entry 1 False, REDUCE sym_class_decl 8 0 204]),
     (20109, [Entry 1 True, REDUCE sym_class_decl 8 0 647]),
     (20111, [Entry 1 False, REDUCE sym_class_decl 8 0 647]),
     (20113, [Entry 1 True, REDUCE sym_fb_decl 9 0 918]),
     (20115, [Entry 1 False, REDUCE sym_fb_decl 9 0 918]),
     (20117, [Entry 1 True, REDUCE sym_class_decl 8 0 648]),
     (20119, [Entry 1 False, REDUCE sym_class_decl 8 0 648]),
     (20121, [Entry 1 True, REDUCE sym_class_decl 9 0 1038]),
     (20123, [Entry 1 False, REDUCE sym_class_decl 9 0 1038]),
     (20125, [Entry 1 True, REDUCE sym_class_decl 9 0 656]),
     (20127, [Entry 1 False, REDUCE sym_class_decl 9 0 656]),
     (20129, [Entry 1 True, REDUCE sym_class_decl 9 0 657]),
     (20131, [Entry 1 False, REDUCE sym_class_decl 9 0 657]),
     (20133, [Entry 1 True, REDUCE sym_class_decl 8 0 375]),
     (20135, [Entry 1 False, REDUCE sym_class_decl 8 0 375]),
     (20137, [Entry 1 True, REDUCE sym_class_decl 9 0 1039]),
     (20139, [Entry 1 False, REDUCE sym_class_decl 9 0 1039]),
     (20141, [Entry 1 True, REDUCE sym_class_decl 8 0 649]),
     (20143, [Entry 1 False, REDUCE sym_class_decl 8 0 649]),
     (20145, [Entry 1 True, REDUCE sym_fb_decl 9 0 919]),
     (20147, [Entry 1 False, REDUCE sym_fb_decl 9 0 919]),
     (20149, [Entry 1 True, REDUCE sym_fb_decl 7 0 328]),
     (20151, [Entry 1 False, REDUCE sym_fb_decl 7 0 328]),
     (20153, [Entry 1 True, REDUCE sym_fb_decl 9 0 887]),
     (20155, [Entry 1 False, REDUCE sym_fb_decl 9 0 887]),
     (20157, [Entry 1 True, REDUCE sym_class_decl 9 0 1040]),
     (20159, [Entry 1 False, REDUCE sym_class_decl 9 0 1040]),
     (20161, [Entry 1 True, REDUCE sym_class_decl 9 0 658]),
     (20163, [Entry 1 False, REDUCE sym_class_decl 9 0 658]),
     (20165, [Entry 1 True, REDUCE sym_class_decl 9 0 659]),
     (20167, [Entry 1 False, REDUCE sym_class_decl 9 0 659]),
     (20169, [Entry 1 True, REDUCE sym_class_decl 9 0 1041]),
     (20171, [Entry 1 False, REDUCE sym_class_decl 9 0 1041]),
     (20173, [Entry 1 True, REDUCE sym_class_decl 9 0 660]),
     (20175, [Entry 1 False, REDUCE sym_class_decl 9 0 660]),
     (20177, [Entry 1 True, REDUCE sym_class_decl 7 0 193]),
     (20179, [Entry 1 False, REDUCE sym_class_decl 7 0 193]),
     (20181, [Entry 1 True, REDUCE sym_func_decl 9 0 1050]),
     (20183, [Entry 1 False, REDUCE sym_func_decl 9 0 1050]),
     (20185, [Entry 1 True, REDUCE sym_class_decl 8 0 376]),
     (20187, [Entry 1 False, REDUCE sym_class_decl 8 0 376]),
     (20189, [Entry 1 True, REDUCE sym_class_decl 8 0 650]),
     (20191, [Entry 1 False, REDUCE sym_class_decl 8 0 650]),
     (20193, [Entry 1 True, REDUCE sym_func_decl 5 0 97]),
     (20195, [Entry 1 False, REDUCE sym_func_decl 5 0 97]),
     (20197, [Entry 1 True, REDUCE sym_class_decl 8 0 205]),
     (20199, [Entry 1 False, REDUCE sym_class_decl 8 0 205]),
     (20201, [Entry 1 True, REDUCE sym_class_decl 8 0 651]),
     (20203, [Entry 1 False, REDUCE sym_class_decl 8 0 651]),
     (20205, [Entry 1 True, REDUCE sym_func_decl 9 0 1051]),
     (20207, [Entry 1 False, REDUCE sym_func_decl 9 0 1051]),
     (20209, [Entry 1 True, REDUCE sym_func_decl 9 0 1052]),
     (20211, [Entry 1 False, REDUCE sym_func_decl 9 0 1052]),
     (20213, [Entry 1 True, REDUCE sym_func_decl 9 0 1053]),
     (20215, [Entry 1 False, REDUCE sym_func_decl 9 0 1053]),
     (20217, [Entry 1 True, REDUCE sym_class_decl 8 0 652]),
     (20219, [Entry 1 False, REDUCE sym_class_decl 8 0 652]),
     (20221, [Entry 1 True, REDUCE sym_class_decl 8 0 377]),
     (20223, [Entry 1 False, REDUCE sym_class_decl 8 0 377]),
     (20225, [Entry 1 True, REDUCE sym_class_decl 8 0 378]),
     (20227, [Entry 1 False, REDUCE sym_class_decl 8 0 378]),
     (20229, [Entry 1 True, REDUCE sym_class_decl 8 0 653]),
     (20231, [Entry 1 False, REDUCE sym_class_decl 8 0 653]),
     (20233, [Entry 1 True, REDUCE sym_fb_decl 9 0 1054]),
     (20235, [Entry 1 False, REDUCE sym_fb_decl 9 0 1054]),
     (20237, [Entry 1 True, REDUCE sym_fb_decl 9 0 678]),
     (20239, [Entry 1 False, REDUCE sym_fb_decl 9 0 678]),
     (20241, [Entry 1 True, REDUCE sym_fb_decl 9 0 1055]),
     (20243, [Entry 1 False, REDUCE sym_fb_decl 9 0 1055]),
     (20245, [Entry 1 True, REDUCE sym_class_decl 8 0 654]),
     (20247, [Entry 1 False, REDUCE sym_class_decl 8 0 654]),
     (20249, [Entry 1 True, REDUCE sym_fb_decl 9 0 1056]),
     (20251, [Entry 1 False, REDUCE sym_fb_decl 9 0 1056]),
     (20253, [Entry 1 True, REDUCE sym_class_decl 8 0 379]),
     (20255, [Entry 1 False, REDUCE sym_class_decl 8 0 379]),
     (20257, [Entry 1 True, REDUCE sym_class_decl 8 0 655]),
     (20259, [Entry 1 False, REDUCE sym_class_decl 8 0 655]),
     (20261, [Entry 1 True, REDUCE sym_class_decl 7 0 352]),
     (20263, [Entry 1 False, REDUCE sym_class_decl 7 0 352]),
     (20265, [Entry 1 True, REDUCE sym_fb_decl 9 0 679]),
     (20267, [Entry 1 False, REDUCE sym_fb_decl 9 0 679]),
     (20269, [Entry 1 True, REDUCE sym_fb_decl 9 0 1057]),
     (20271, [Entry 1 False, REDUCE sym_fb_decl 9 0 1057]),
     (20273, [Entry 1 True, REDUCE sym_fb_decl 9 0 1058]),
     (20275, [Entry 1 False, REDUCE sym_fb_decl 9 0 1058]),
     (20277, [Entry 1 True, REDUCE sym_fb_decl 9 0 920]),
     (20279, [Entry 1 False, REDUCE sym_fb_decl 9 0 920]),
     (20281, [Entry 1 True, REDUCE sym_class_decl 8 0 656]),
     (20283, [Entry 1 False, REDUCE sym_class_decl 8 0 656]),
     (20285, [Entry 1 True, REDUCE sym_class_decl 8 0 380]),
     (20287, [Entry 1 False, REDUCE sym_class_decl 8 0 380]),
     (20289, [Entry 1 True, REDUCE sym_class_decl 8 0 657]),
     (20291, [Entry 1 False, REDUCE sym_class_decl 8 0 657]),
     (20293, [Entry 1 True, REDUCE sym_fb_decl 4 0 25]),
     (20295, [Entry 1 False, REDUCE sym_fb_decl 4 0 25]),
     (20297, [Entry 1 True, REDUCE sym_fb_decl 9 0 1059]),
     (20299, [Entry 1 False, REDUCE sym_fb_decl 9 0 1059]),
     (20301, [Entry 1 True, REDUCE sym_fb_decl 9 0 564]),
     (20303, [Entry 1 False, REDUCE sym_fb_decl 9 0 564]),
     (20305, [Entry 1 True, REDUCE sym_class_decl 8 0 381]),
     (20307, [Entry 1 False, REDUCE sym_class_decl 8 0 381]),
     (20309, [Entry 1 True, REDUCE sym_class_decl 8 0 658]),
     (20311, [Entry 1 False, REDUCE sym_class_decl 8 0 658]),
     (20313, [Entry 1 True, REDUCE sym_class_decl 8 0 25]),
     (20315, [Entry 1 False, REDUCE sym_class_decl 8 0 25]),
     (20317, [Entry 1 True, REDUCE sym_class_decl 8 0 659])]"

lemma ts_parse_actions_67_tiled: "tiled_from 20019 ts_parse_actions_67 \<and> after_runs 20019 ts_parse_actions_67 = 20319"
  unfolding ts_parse_actions_67_def by (simp cong: runs_weak)

lemma ts_parse_actions_67_ok: "list_all (\<lambda>(i, es). group_ok es) ts_parse_actions_67"
  unfolding ts_parse_actions_67_def
  by (simp add: group_ok_simps entry_action_ok_simps del: One_nat_def group_ok.simps cong: list_all_weak)

text \<open>Lines 490771 to 490920.\<close>

definition ts_parse_actions_68 :: "(nat \<times> TSParseActionEntry list) list" where
  "ts_parse_actions_68 =
    [(20319, [Entry 1 False, REDUCE sym_class_decl 8 0 659]),
     (20321, [Entry 1 True, REDUCE sym_fb_decl 9 0 398]),
     (20323, [Entry 1 False, REDUCE sym_fb_decl 9 0 398]),
     (20325, [Entry 1 True, REDUCE sym_fb_decl 9 0 1060]),
     (20327, [Entry 1 False, REDUCE sym_fb_decl 9 0 1060]),
     (20329, [Entry 1 True, REDUCE sym_class_decl 8 0 660]),
     (20331, [Entry 1 False, REDUCE sym_class_decl 8 0 660]),
     (20333, [Entry 1 True, REDUCE sym_class_decl 7 0 353]),
     (20335, [Entry 1 False, REDUCE sym_class_decl 7 0 353]),
     (20337, [Entry 1 True, REDUCE sym_func_decl 5 0 63]),
     (20339, [Entry 1 False, REDUCE sym_func_decl 5 0 63]),
     (20341, [Entry 1 True, REDUCE sym_fb_decl 9 0 1061]),
     (20343, [Entry 1 False, REDUCE sym_fb_decl 9 0 1061]),
     (20345, [Entry 1 True, REDUCE sym_class_decl 7 0 194]),
     (20347, [Entry 1 False, REDUCE sym_class_decl 7 0 194]),
     (20349, [Entry 1 True, REDUCE sym_class_decl 7 0 354]),
     (20351, [Entry 1 False, REDUCE sym_class_decl 7 0 354]),
     (20353, [Entry 1 True, REDUCE sym_fb_decl 9 0 921]),
     (20355, [Entry 1 False, REDUCE sym_fb_decl 9 0 921]),
     (20357, [Entry 1 True, REDUCE sym_fb_decl 9 0 1062]),
     (20359, [Entry 1 False, REDUCE sym_fb_decl 9 0 1062]),
     (20361, [Entry 1 True, REDUCE sym_fb_decl 9 0 922]),
     (20363, [Entry 1 False, REDUCE sym_fb_decl 9 0 922]),
     (20365, [Entry 1 True, REDUCE sym_fb_decl 9 0 680]),
     (20367, [Entry 1 False, REDUCE sym_fb_decl 9 0 680]),
     (20369, [Entry 1 True, REDUCE sym_class_decl 8 0 382]),
     (20371, [Entry 1 False, REDUCE sym_class_decl 8 0 382]),
     (20373, [Entry 1 True, REDUCE sym_fb_decl 9 0 1063]),
     (20375, [Entry 1 False, REDUCE sym_fb_decl 9 0 1063]),
     (20377, [Entry 1 True, REDUCE sym_interface_decl 8 0 663]),
     (20379, [Entry 1 False, REDUCE sym_interface_decl 8 0 663]),
     (20381, [Entry 1 True, REDUCE sym_fb_decl 9 0 1064]),
     (20383, [Entry 1 False, REDUCE sym_fb_decl 9 0 1064]),
     (20385, [Entry 1 True, REDUCE sym_func_decl 5 0 64]),
     (20387, [Entry 1 False, REDUCE sym_func_decl 5 0 64]),
     (20389, [Entry 1 True, REDUCE sym_fb_decl 9 0 888]),
     (20391, [Entry 1 False, REDUCE sym_fb_decl 9 0 888]),
     (20393, [Entry 1 True, REDUCE sym_class_decl 7 0 355]),
     (20395, [Entry 1 False, REDUCE sym_class_decl 7 0 355]),
     (20397, [Entry 1 True, REDUCE sym_class_decl 7 0 356]),
     (20399, [Entry 1 False, REDUCE sym_class_decl 7 0 356]),
     (20401, [Entry 1 True, REDUCE sym_fb_decl 9 0 925]),
     (20403, [Entry 1 False, REDUCE sym_fb_decl 9 0 925]),
     (20405, [Entry 1 True, REDUCE sym_fb_decl 9 0 1065]),
     (20407, [Entry 1 False, REDUCE sym_fb_decl 9 0 1065]),
     (20409, [Entry 1 True, REDUCE sym_fb_decl 9 0 682]),
     (20411, [Entry 1 False, REDUCE sym_fb_decl 9 0 682]),
     (20413, [Entry 1 True, REDUCE sym_fb_decl 9 0 1066]),
     (20415, [Entry 1 False, REDUCE sym_fb_decl 9 0 1066]),
     (20417, [Entry 1 True, REDUCE sym_fb_decl 9 0 1067]),
     (20419, [Entry 1 False, REDUCE sym_fb_decl 9 0 1067]),
     (20421, [Entry 1 True, REDUCE sym_func_decl 5 0 65]),
     (20423, [Entry 1 False, REDUCE sym_func_decl 5 0 65]),
     (20425, [Entry 1 True, REDUCE sym_fb_decl 9 0 683]),
     (20427, [Entry 1 False, REDUCE sym_fb_decl 9 0 683]),
     (20429, [Entry 1 True, REDUCE sym_fb_decl 9 0 1068]),
     (20431, [Entry 1 False, REDUCE sym_fb_decl 9 0 1068]),
     (20433, [Entry 1 True, REDUCE sym_fb_decl 9 0 1069]),
     (20435, [Entry 1 False, REDUCE sym_fb_decl 9 0 1069]),
     (20437, [Entry 1 True, REDUCE sym_fb_decl 9 0 570]),
     (20439, [Entry 1 False, REDUCE sym_fb_decl 9 0 570]),
     (20441, [Entry 1 True, REDUCE sym_class_decl 7 0 357]),
     (20443, [Entry 1 False, REDUCE sym_class_decl 7 0 357]),
     (20445, [Entry 1 True, REDUCE sym_fb_decl 9 0 1070]),
     (20447, [Entry 1 False, REDUCE sym_fb_decl 9 0 1070]),
     (20449, [Entry 1 True, REDUCE sym_fb_decl 9 0 926]),
     (20451, [Entry 1 False, REDUCE sym_fb_decl 9 0 926]),
     (20453, [Entry 1 True, REDUCE sym_fb_decl 9 0 927]),
     (20455, [Entry 1 False, REDUCE sym_fb_decl 9 0 927]),
     (20457, [Entry 1 True, REDUCE sym_fb_decl 9 0 399]),
     (20459, [Entry 1 False, REDUCE sym_fb_decl 9 0 399]),
     (20461, [Entry 1 True, REDUCE sym_fb_decl 9 0 1071]),
     (20463, [Entry 1 False, REDUCE sym_fb_decl 9 0 1071]),
     (20465, [Entry 1 True, REDUCE sym_func_decl 5 0 66]),
     (20467, [Entry 1 False, REDUCE sym_func_decl 5 0 66]),
     (20469, [Entry 1 True, REDUCE sym_fb_decl 9 0 572]),
     (20471, [Entry 1 False, REDUCE sym_fb_decl 9 0 572]),
     (20473, [Entry 1 True, REDUCE sym_func_decl 8 0 670]),
     (20475, [Entry 1 False, REDUCE sym_func_decl 8 0 670]),
     (20477, [Entry 1 True, REDUCE sym_func_decl 8 0 671]),
     (20479, [Entry 1 False, REDUCE sym_func_decl 8 0 671]),
     (20481, [Entry 1 True, REDUCE sym_func_decl 8 0 672]),
     (20483, [Entry 1 False, REDUCE sym_func_decl 8 0 672]),
     (20485, [Entry 1 True, REDUCE sym_func_decl 8 0 673]),
     (20487, [Entry 1 False, REDUCE sym_func_decl 8 0 673]),
     (20489, [Entry 1 True, REDUCE sym_func_decl 8 0 674]),
     (20491, [Entry 1 False, REDUCE sym_func_decl 8 0 674]),
     (20493, [Entry 1 True, REDUCE sym_fb_decl 9 0 1072]),
     (20495, [Entry 1 False, REDUCE sym_fb_decl 9 0 1072]),
     (20497, [Entry 1 True, REDUCE sym_func_decl 8 0 675]),
     (20499, [Entry 1 False, REDUCE sym_func_decl 8 0 675]),
     (20501, [Entry 1 True, REDUCE sym_func_decl 8 0 676]),
     (20503, [Entry 1 False, REDUCE sym_func_decl 8 0 676]),
     (20505, [Entry 1 True, REDUCE sym_fb_decl 8 0 398]),
     (20507, [Entry 1 False, REDUCE sym_fb_decl 8 0 398]),
     (20509, [Entry 1 True, REDUCE sym_fb_decl 8 0 677]),
     (20511, [Entry 1 False, REDUCE sym_fb_decl 8 0 677]),
     (20513, [Entry 1 True, REDUCE sym_fb_decl 8 0 678]),
     (20515, [Entry 1 False, REDUCE sym_fb_decl 8 0 678]),
     (20517, [Entry 1 True, REDUCE sym_func_decl 7 0 239]),
     (20519, [Entry 1 False, REDUCE sym_func_decl 7 0 239]),
     (20521, [Entry 1 True, REDUCE sym_func_decl 7 0 240]),
     (20523, [Entry 1 False, REDUCE sym_func_decl 7 0 240]),
     (20525, [Entry 1 True, REDUCE sym_fb_decl 8 0 679]),
     (20527, [Entry 1 False, REDUCE sym_fb_decl 8 0 679]),
     (20529, [Entry 1 True, REDUCE sym_func_decl 7 0 241]),
     (20531, [Entry 1 False, REDUCE sym_func_decl 7 0 241]),
     (20533, [Entry 1 True, REDUCE sym_class_decl 7 0 195]),
     (20535, [Entry 1 False, REDUCE sym_class_decl 7 0 195]),
     (20537, [Entry 1 True, REDUCE sym_class_decl 7 0 358]),
     (20539, [Entry 1 False, REDUCE sym_class_decl 7 0 358]),
     (20541, [Entry 1 True, REDUCE sym_func_decl 5 0 67]),
     (20543, [Entry 1 False, REDUCE sym_func_decl 5 0 67]),
     (20545, [Entry 1 True, REDUCE sym_class_decl 7 0 30]),
     (20547, [Entry 1 False, REDUCE sym_class_decl 7 0 30]),
     (20549, [Entry 1 True, REDUCE sym_func_decl 5 0 98]),
     (20551, [Entry 1 False, REDUCE sym_func_decl 5 0 98]),
     (20553, [Entry 1 True, REDUCE sym_func_decl 5 0 43]),
     (20555, [Entry 1 False, REDUCE sym_func_decl 5 0 43]),
     (20557, [Entry 1 True, REDUCE sym_fb_decl 8 0 680]),
     (20559, [Entry 1 False, REDUCE sym_fb_decl 8 0 680]),
     (20561, [Entry 1 True, REDUCE sym_class_decl 7 0 359]),
     (20563, [Entry 1 False, REDUCE sym_class_decl 7 0 359]),
     (20565, [Entry 1 True, REDUCE sym_fb_decl 9 0 928]),
     (20567, [Entry 1 False, REDUCE sym_fb_decl 9 0 928]),
     (20569, [Entry 1 True, REDUCE sym_fb_decl 8 0 399]),
     (20571, [Entry 1 False, REDUCE sym_fb_decl 8 0 399]),
     (20573, [Entry 1 True, REDUCE sym_fb_decl 8 0 681]),
     (20575, [Entry 1 False, REDUCE sym_fb_decl 8 0 681]),
     (20577, [Entry 1 True, REDUCE sym_fb_decl 8 0 682]),
     (20579, [Entry 1 False, REDUCE sym_fb_decl 8 0 682]),
     (20581, [Entry 1 True, REDUCE sym_fb_decl 9 0 929]),
     (20583, [Entry 1 False, REDUCE sym_fb_decl 9 0 929]),
     (20585, [Entry 1 True, REDUCE sym_fb_decl 9 0 1073]),
     (20587, [Entry 1 False, REDUCE sym_fb_decl 9 0 1073]),
     (20589, [Entry 1 True, REDUCE sym_fb_decl 8 0 683]),
     (20591, [Entry 1 False, REDUCE sym_fb_decl 8 0 683]),
     (20593, [Entry 1 True, REDUCE sym_fb_decl 9 0 876]),
     (20595, [Entry 1 False, REDUCE sym_fb_decl 9 0 876]),
     (20597, [Entry 1 True, REDUCE sym_fb_decl 9 0 684]),
     (20599, [Entry 1 False, REDUCE sym_fb_decl 9 0 684]),
     (20601, [Entry 1 True, REDUCE sym_fb_decl 9 0 1074]),
     (20603, [Entry 1 False, REDUCE sym_fb_decl 9 0 1074]),
     (20605, [Entry 1 True, REDUCE sym_fb_decl 9 0 685]),
     (20607, [Entry 1 False, REDUCE sym_fb_decl 9 0 685]),
     (20609, [Entry 1 True, REDUCE sym_fb_decl 9 0 1075]),
     (20611, [Entry 1 False, REDUCE sym_fb_decl 9 0 1075]),
     (20613, [Entry 1 True, REDUCE sym_fb_decl 9 0 1076]),
     (20615, [Entry 1 False, REDUCE sym_fb_decl 9 0 1076]),
     (20617, [Entry 1 True, REDUCE sym_class_decl 7 0 360])]"

lemma ts_parse_actions_68_tiled: "tiled_from 20319 ts_parse_actions_68 \<and> after_runs 20319 ts_parse_actions_68 = 20619"
  unfolding ts_parse_actions_68_def by (simp cong: runs_weak)

lemma ts_parse_actions_68_ok: "list_all (\<lambda>(i, es). group_ok es) ts_parse_actions_68"
  unfolding ts_parse_actions_68_def
  by (simp add: group_ok_simps entry_action_ok_simps del: One_nat_def group_ok.simps cong: list_all_weak)

text \<open>Lines 490921 to 491070.\<close>

definition ts_parse_actions_69 :: "(nat \<times> TSParseActionEntry list) list" where
  "ts_parse_actions_69 =
    [(20619, [Entry 1 False, REDUCE sym_class_decl 7 0 360]),
     (20621, [Entry 1 True, REDUCE sym_class_decl 7 0 196]),
     (20623, [Entry 1 False, REDUCE sym_class_decl 7 0 196]),
     (20625, [Entry 1 True, REDUCE sym_fb_decl 9 0 1077]),
     (20627, [Entry 1 False, REDUCE sym_fb_decl 9 0 1077]),
     (20629, [Entry 1 True, REDUCE sym_class_decl 7 0 197]),
     (20631, [Entry 1 False, REDUCE sym_class_decl 7 0 197]),
     (20633, [Entry 1 True, REDUCE sym_class_decl 7 0 361]),
     (20635, [Entry 1 False, REDUCE sym_class_decl 7 0 361]),
     (20637, [Entry 1 True, REDUCE sym_fb_decl 9 0 573]),
     (20639, [Entry 1 False, REDUCE sym_fb_decl 9 0 573]),
     (20641, [Entry 1 True, REDUCE sym_fb_decl 9 0 930]),
     (20643, [Entry 1 False, REDUCE sym_fb_decl 9 0 930]),
     (20645, [Entry 1 True, REDUCE sym_fb_decl 9 0 931]),
     (20647, [Entry 1 False, REDUCE sym_fb_decl 9 0 931]),
     (20649, [Entry 1 True, REDUCE sym_class_decl 7 0 362]),
     (20651, [Entry 1 False, REDUCE sym_class_decl 7 0 362]),
     (20653, [Entry 1 True, REDUCE sym_fb_decl 9 0 574]),
     (20655, [Entry 1 False, REDUCE sym_fb_decl 9 0 574]),
     (20657, [Entry 1 True, REDUCE sym_fb_decl 9 0 1078]),
     (20659, [Entry 1 False, REDUCE sym_fb_decl 9 0 1078]),
     (20661, [Entry 1 True, REDUCE sym_fb_decl 6 0 28]),
     (20663, [Entry 1 False, REDUCE sym_fb_decl 6 0 28]),
     (20665, [Entry 1 True, REDUCE sym_fb_decl 6 0 155]),
     (20667, [Entry 1 False, REDUCE sym_fb_decl 6 0 155]),
     (20669, [Entry 1 True, REDUCE sym_fb_decl 9 0 686]),
     (20671, [Entry 1 False, REDUCE sym_fb_decl 9 0 686]),
     (20673, [Entry 1 True, REDUCE sym_fb_decl 9 0 1079]),
     (20675, [Entry 1 False, REDUCE sym_fb_decl 9 0 1079]),
     (20677, [Entry 1 True, REDUCE sym_fb_decl 9 0 1080]),
     (20679, [Entry 1 False, REDUCE sym_fb_decl 9 0 1080]),
     (20681, [Entry 1 True, REDUCE sym_fb_decl 9 0 932]),
     (20683, [Entry 1 False, REDUCE sym_fb_decl 9 0 932]),
     (20685, [Entry 1 True, REDUCE sym_fb_decl 6 0 156]),
     (20687, [Entry 1 False, REDUCE sym_fb_decl 6 0 156]),
     (20689, [Entry 1 True, REDUCE sym_fb_decl 9 0 1081]),
     (20691, [Entry 1 False, REDUCE sym_fb_decl 9 0 1081]),
     (20693, [Entry 1 True, REDUCE sym_func_decl 5 0 68]),
     (20695, [Entry 1 False, REDUCE sym_func_decl 5 0 68]),
     (20697, [Entry 1 True, REDUCE sym_class_decl 7 0 83]),
     (20699, [Entry 1 False, REDUCE sym_class_decl 7 0 83]),
     (20701, [Entry 1 True, REDUCE sym_class_decl 7 0 363]),
     (20703, [Entry 1 False, REDUCE sym_class_decl 7 0 363]),
     (20705, [Entry 1 True, REDUCE sym_fb_decl 9 0 933]),
     (20707, [Entry 1 False, REDUCE sym_fb_decl 9 0 933]),
     (20709, [Entry 1 True, REDUCE sym_fb_decl 9 0 542]),
     (20711, [Entry 1 False, REDUCE sym_fb_decl 9 0 542]),
     (20713, [Entry 1 True, REDUCE sym_fb_decl 5 0 99]),
     (20715, [Entry 1 False, REDUCE sym_fb_decl 5 0 99]),
     (20717, [Entry 1 True, REDUCE sym_fb_decl 9 0 575]),
     (20719, [Entry 1 False, REDUCE sym_fb_decl 9 0 575]),
     (20721, [Entry 1 True, REDUCE sym_fb_decl 8 0 684]),
     (20723, [Entry 1 False, REDUCE sym_fb_decl 8 0 684]),
     (20725, [Entry 1 True, REDUCE sym_fb_decl 9 0 934]),
     (20727, [Entry 1 False, REDUCE sym_fb_decl 9 0 934]),
     (20729, [Entry 1 True, REDUCE sym_class_decl 7 0 364]),
     (20731, [Entry 1 False, REDUCE sym_class_decl 7 0 364]),
     (20733, [Entry 1 True, REDUCE sym_fb_decl 8 0 685]),
     (20735, [Entry 1 False, REDUCE sym_fb_decl 8 0 685]),
     (20737, [Entry 1 True, REDUCE sym_fb_decl 9 0 1082]),
     (20739, [Entry 1 False, REDUCE sym_fb_decl 9 0 1082]),
     (20741, [Entry 1 True, REDUCE sym_class_decl 7 0 198]),
     (20743, [Entry 1 False, REDUCE sym_class_decl 7 0 198]),
     (20745, [Entry 1 True, REDUCE sym_fb_decl 9 0 1083]),
     (20747, [Entry 1 False, REDUCE sym_fb_decl 9 0 1083]),
     (20749, [Entry 1 True, REDUCE sym_fb_decl 9 0 689]),
     (20751, [Entry 1 False, REDUCE sym_fb_decl 9 0 689]),
     (20753, [Entry 1 True, REDUCE sym_fb_decl 9 0 1084]),
     (20755, [Entry 1 False, REDUCE sym_fb_decl 9 0 1084]),
     (20757, [Entry 1 True, REDUCE sym_fb_decl 8 0 686]),
     (20759, [Entry 1 False, REDUCE sym_fb_decl 8 0 686]),
     (20761, [Entry 1 True, REDUCE sym_data_type_decl 2 0 0]),
     (20763, [Entry 1 False, REDUCE sym_data_type_decl 2 0 0]),
     (20765, [Entry 1 True, REDUCE sym_fb_decl 9 0 1085]),
     (20767, [Entry 1 False, REDUCE sym_fb_decl 9 0 1085]),
     (20769, [Entry 1 True, REDUCE sym_fb_decl 5 0 38]),
     (20771, [Entry 1 False, REDUCE sym_fb_decl 5 0 38]),
     (20773, [Entry 1 True, REDUCE sym_fb_decl 9 0 691]),
     (20775, [Entry 1 False, REDUCE sym_fb_decl 9 0 691]),
     (20777, [Entry 1 True, REDUCE sym_fb_decl 9 0 1086]),
     (20779, [Entry 1 False, REDUCE sym_fb_decl 9 0 1086]),
     (20781, [Entry 1 True, REDUCE sym_fb_decl 9 0 1087]),
     (20783, [Entry 1 False, REDUCE sym_fb_decl 9 0 1087]),
     (20785, [Entry 1 True, REDUCE sym_fb_decl 8 0 687]),
     (20787, [Entry 1 False, REDUCE sym_fb_decl 8 0 687]),
     (20789, [Entry 1 True, REDUCE sym_fb_decl 8 0 401]),
     (20791, [Entry 1 False, REDUCE sym_fb_decl 8 0 401]),
     (20793, [Entry 1 True, REDUCE sym_fb_decl 8 0 688]),
     (20795, [Entry 1 False, REDUCE sym_fb_decl 8 0 688]),
     (20797, [Entry 1 True, REDUCE sym_fb_decl 8 0 689]),
     (20799, [Entry 1 False, REDUCE sym_fb_decl 8 0 689]),
     (20801, [Entry 1 True, REDUCE sym_class_decl 7 0 365]),
     (20803, [Entry 1 False, REDUCE sym_class_decl 7 0 365]),
     (20805, [Entry 1 True, REDUCE sym_fb_decl 8 0 402]),
     (20807, [Entry 1 False, REDUCE sym_fb_decl 8 0 402]),
     (20809, [Entry 1 True, REDUCE sym_fb_decl 8 0 690]),
     (20811, [Entry 1 False, REDUCE sym_fb_decl 8 0 690]),
     (20813, [Entry 1 True, REDUCE sym_fb_decl 8 0 691]),
     (20815, [Entry 1 False, REDUCE sym_fb_decl 8 0 691]),
     (20817, [Entry 1 True, REDUCE sym_fb_decl 9 0 692]),
     (20819, [Entry 1 False, REDUCE sym_fb_decl 9 0 692]),
     (20821, [Entry 1 True, REDUCE sym_fb_decl 9 0 1088]),
     (20823, [Entry 1 False, REDUCE sym_fb_decl 9 0 1088]),
     (20825, [Entry 1 True, REDUCE sym_fb_decl 8 0 692]),
     (20827, [Entry 1 False, REDUCE sym_fb_decl 8 0 692]),
     (20829, [Entry 1 True, REDUCE sym_fb_decl 9 0 1089]),
     (20831, [Entry 1 False, REDUCE sym_fb_decl 9 0 1089]),
     (20833, [Entry 1 True, REDUCE sym_class_decl 7 0 199]),
     (20835, [Entry 1 False, REDUCE sym_class_decl 7 0 199]),
     (20837, [Entry 1 True, REDUCE sym_fb_decl 8 0 99]),
     (20839, [Entry 1 False, REDUCE sym_fb_decl 8 0 99]),
     (20841, [Entry 1 True, REDUCE sym_fb_decl 8 0 693]),
     (20843, [Entry 1 False, REDUCE sym_fb_decl 8 0 693]),
     (20845, [Entry 1 True, REDUCE sym_fb_decl 5 0 95]),
     (20847, [Entry 1 False, REDUCE sym_fb_decl 5 0 95]),
     (20849, [Entry 1 True, REDUCE sym_class_decl 7 0 166]),
     (20851, [Entry 1 False, REDUCE sym_class_decl 7 0 166]),
     (20853, [Entry 1 True, REDUCE sym_fb_decl 8 0 694]),
     (20855, [Entry 1 False, REDUCE sym_fb_decl 8 0 694]),
     (20857, [Entry 1 True, REDUCE sym_fb_decl 5 0 97]),
     (20859, [Entry 1 False, REDUCE sym_fb_decl 5 0 97]),
     (20861, [Entry 1 True, REDUCE sym_class_decl 7 0 366]),
     (20863, [Entry 1 False, REDUCE sym_class_decl 7 0 366]),
     (20865, [Entry 1 True, REDUCE sym_class_decl 7 0 73]),
     (20867, [Entry 1 False, REDUCE sym_class_decl 7 0 73]),
     (20869, [Entry 1 True, REDUCE sym_class_decl 7 0 307]),
     (20871, [Entry 1 False, REDUCE sym_class_decl 7 0 307]),
     (20873, [Entry 1 True, REDUCE sym_func_decl 4 0 23]),
     (20875, [Entry 1 False, REDUCE sym_func_decl 4 0 23]),
     (20877, [Entry 1 True, REDUCE sym_fb_decl 9 0 1090]),
     (20879, [Entry 1 False, REDUCE sym_fb_decl 9 0 1090]),
     (20881, [Entry 1 True, REDUCE sym_fb_decl 9 0 693]),
     (20883, [Entry 1 False, REDUCE sym_fb_decl 9 0 693]),
     (20885, [Entry 1 True, REDUCE sym_fb_decl 8 0 695]),
     (20887, [Entry 1 False, REDUCE sym_fb_decl 8 0 695]),
     (20889, [Entry 1 True, REDUCE sym_fb_decl 9 0 1091]),
     (20891, [Entry 1 False, REDUCE sym_fb_decl 9 0 1091]),
     (20893, [Entry 1 True, REDUCE sym_fb_decl 8 0 403]),
     (20895, [Entry 1 False, REDUCE sym_fb_decl 8 0 403]),
     (20897, [Entry 1 True, REDUCE sym_fb_decl 8 0 696]),
     (20899, [Entry 1 False, REDUCE sym_fb_decl 8 0 696]),
     (20901, [Entry 1 True, REDUCE sym_fb_decl 8 0 697]),
     (20903, [Entry 1 False, REDUCE sym_fb_decl 8 0 697]),
     (20905, [Entry 1 True, REDUCE sym_fb_decl 9 0 1092]),
     (20907, [Entry 1 False, REDUCE sym_fb_decl 9 0 1092]),
     (20909, [Entry 1 True, REDUCE sym_fb_decl 9 0 935]),
     (20911, [Entry 1 False, REDUCE sym_fb_decl 9 0 935]),
     (20913, [Entry 1 True, REDUCE sym_fb_decl 8 0 405]),
     (20915, [Entry 1 False, REDUCE sym_fb_decl 8 0 405]),
     (20917, [Entry 1 True, REDUCE sym_fb_decl 8 0 698])]"

lemma ts_parse_actions_69_tiled: "tiled_from 20619 ts_parse_actions_69 \<and> after_runs 20619 ts_parse_actions_69 = 20919"
  unfolding ts_parse_actions_69_def by (simp cong: runs_weak)

lemma ts_parse_actions_69_ok: "list_all (\<lambda>(i, es). group_ok es) ts_parse_actions_69"
  unfolding ts_parse_actions_69_def
  by (simp add: group_ok_simps entry_action_ok_simps del: One_nat_def group_ok.simps cong: list_all_weak)

text \<open>Lines 491071 to 491220.\<close>

definition ts_parse_actions_70 :: "(nat \<times> TSParseActionEntry list) list" where
  "ts_parse_actions_70 =
    [(20919, [Entry 1 False, REDUCE sym_fb_decl 8 0 698]),
     (20921, [Entry 1 True, REDUCE sym_fb_decl 8 0 699]),
     (20923, [Entry 1 False, REDUCE sym_fb_decl 8 0 699]),
     (20925, [Entry 1 True, REDUCE sym_fb_decl 8 0 407]),
     (20927, [Entry 1 False, REDUCE sym_fb_decl 8 0 407]),
     (20929, [Entry 1 True, REDUCE sym_fb_decl 8 0 700]),
     (20931, [Entry 1 False, REDUCE sym_fb_decl 8 0 700]),
     (20933, [Entry 1 True, REDUCE sym_fb_decl 9 0 694]),
     (20935, [Entry 1 False, REDUCE sym_fb_decl 9 0 694]),
     (20937, [Entry 1 True, REDUCE sym_fb_decl 9 0 1093]),
     (20939, [Entry 1 False, REDUCE sym_fb_decl 9 0 1093]),
     (20941, [Entry 1 True, REDUCE sym_fb_decl 9 0 1094]),
     (20943, [Entry 1 False, REDUCE sym_fb_decl 9 0 1094]),
     (20945, [Entry 1 True, REDUCE sym_class_decl 7 0 367]),
     (20947, [Entry 1 False, REDUCE sym_class_decl 7 0 367]),
     (20949, [Entry 1 True, REDUCE sym_class_decl 7 0 200]),
     (20951, [Entry 1 False, REDUCE sym_class_decl 7 0 200]),
     (20953, [Entry 1 True, REDUCE sym_fb_decl 9 0 1095]),
     (20955, [Entry 1 False, REDUCE sym_fb_decl 9 0 1095]),
     (20957, [Entry 1 True, REDUCE sym_class_decl 7 0 311]),
     (20959, [Entry 1 False, REDUCE sym_class_decl 7 0 311]),
     (20961, [Entry 1 True, REDUCE sym_fb_decl 9 0 99]),
     (20963, [Entry 1 False, REDUCE sym_fb_decl 9 0 99]),
     (20965, [Entry 1 True, REDUCE sym_fb_decl 9 0 1096]),
     (20967, [Entry 1 False, REDUCE sym_fb_decl 9 0 1096]),
     (20969, [Entry 1 True, REDUCE sym_fb_decl 8 0 701]),
     (20971, [Entry 1 False, REDUCE sym_fb_decl 8 0 701]),
     (20973, [Entry 1 True, REDUCE sym_data_type_decl 3 0 0]),
     (20975, [Entry 1 False, REDUCE sym_data_type_decl 3 0 0]),
     (20977, [Entry 1 True, REDUCE sym_fb_decl 8 0 408]),
     (20979, [Entry 1 False, REDUCE sym_fb_decl 8 0 408]),
     (20981, [Entry 1 True, REDUCE sym_fb_decl 8 0 702]),
     (20983, [Entry 1 False, REDUCE sym_fb_decl 8 0 702]),
     (20985, [Entry 1 True, REDUCE sym_fb_decl 8 0 703]),
     (20987, [Entry 1 False, REDUCE sym_fb_decl 8 0 703]),
     (20989, [Entry 1 True, REDUCE sym_fb_decl 8 0 704]),
     (20991, [Entry 1 False, REDUCE sym_fb_decl 8 0 704]),
     (20993, [Entry 1 True, REDUCE sym_fb_decl 8 0 411]),
     (20995, [Entry 1 False, REDUCE sym_fb_decl 8 0 411]),
     (20997, [Entry 1 True, REDUCE sym_fb_decl 8 0 705]),
     (20999, [Entry 1 False, REDUCE sym_fb_decl 8 0 705]),
     (21001, [Entry 1 True, REDUCE sym_fb_decl 8 0 706]),
     (21003, [Entry 1 False, REDUCE sym_fb_decl 8 0 706]),
     (21005, [Entry 1 True, REDUCE sym_fb_decl 5 0 96]),
     (21007, [Entry 1 False, REDUCE sym_fb_decl 5 0 96]),
     (21009, [Entry 1 True, REDUCE sym_fb_decl 8 0 412]),
     (21011, [Entry 1 False, REDUCE sym_fb_decl 8 0 412]),
     (21013, [Entry 1 True, REDUCE sym_fb_decl 8 0 707]),
     (21015, [Entry 1 False, REDUCE sym_fb_decl 8 0 707]),
     (21017, [Entry 1 True, REDUCE sym_fb_decl 8 0 708]),
     (21019, [Entry 1 False, REDUCE sym_fb_decl 8 0 708]),
     (21021, [Entry 1 True, REDUCE sym_fb_decl 6 0 157]),
     (21023, [Entry 1 False, REDUCE sym_fb_decl 6 0 157]),
     (21025, [Entry 1 True, REDUCE sym_fb_decl 9 0 1097]),
     (21027, [Entry 1 False, REDUCE sym_fb_decl 9 0 1097]),
     (21029, [Entry 1 True, REDUCE sym_fb_decl 8 0 709]),
     (21031, [Entry 1 False, REDUCE sym_fb_decl 8 0 709]),
     (21033, [Entry 1 True, REDUCE sym_fb_decl 9 0 889]),
     (21035, [Entry 1 False, REDUCE sym_fb_decl 9 0 889]),
     (21037, [Entry 1 True, REDUCE sym_fb_decl 8 0 225]),
     (21039, [Entry 1 False, REDUCE sym_fb_decl 8 0 225]),
     (21041, [Entry 1 True, REDUCE sym_fb_decl 8 0 710]),
     (21043, [Entry 1 False, REDUCE sym_fb_decl 8 0 710]),
     (21045, [Entry 1 True, REDUCE sym_class_decl 7 0 170]),
     (21047, [Entry 1 False, REDUCE sym_class_decl 7 0 170]),
     (21049, [Entry 1 True, REDUCE sym_fb_decl 5 0 100]),
     (21051, [Entry 1 False, REDUCE sym_fb_decl 5 0 100]),
     (21053, [Entry 1 True, REDUCE sym_fb_decl 8 0 711]),
     (21055, [Entry 1 False, REDUCE sym_fb_decl 8 0 711]),
     (21057, [Entry 1 True, REDUCE sym_class_decl 7 0 368]),
     (21059, [Entry 1 False, REDUCE sym_class_decl 7 0 368]),
     (21061, [Entry 1 True, REDUCE sym_fb_decl 9 0 1098]),
     (21063, [Entry 1 False, REDUCE sym_fb_decl 9 0 1098]),
     (21065, [Entry 1 True, REDUCE sym_fb_decl 9 0 936]),
     (21067, [Entry 1 False, REDUCE sym_fb_decl 9 0 936]),
     (21069, [Entry 1 True, REDUCE sym_fb_decl 8 0 712]),
     (21071, [Entry 1 False, REDUCE sym_fb_decl 8 0 712]),
     (21073, [Entry 1 True, REDUCE sym_fb_decl 9 0 695]),
     (21075, [Entry 1 False, REDUCE sym_fb_decl 9 0 695]),
     (21077, [Entry 1 True, REDUCE sym_fb_decl 8 0 413]),
     (21079, [Entry 1 False, REDUCE sym_fb_decl 8 0 413]),
     (21081, [Entry 1 True, REDUCE sym_fb_decl 8 0 713]),
     (21083, [Entry 1 False, REDUCE sym_fb_decl 8 0 713]),
     (21085, [Entry 1 True, REDUCE sym_fb_decl 8 0 714]),
     (21087, [Entry 1 False, REDUCE sym_fb_decl 8 0 714]),
     (21089, [Entry 1 True, REDUCE sym_fb_decl 9 0 1099]),
     (21091, [Entry 1 False, REDUCE sym_fb_decl 9 0 1099]),
     (21093, [Entry 1 True, REDUCE sym_fb_decl 9 0 1100]),
     (21095, [Entry 1 False, REDUCE sym_fb_decl 9 0 1100]),
     (21097, [Entry 1 True, REDUCE sym_prog_decl 5 0 95]),
     (21099, [Entry 1 False, REDUCE sym_prog_decl 5 0 95]),
     (21101, [Entry 1 True, REDUCE sym_fb_decl 9 0 1101]),
     (21103, [Entry 1 False, REDUCE sym_fb_decl 9 0 1101]),
     (21105, [Entry 1 True, REDUCE sym_fb_decl 9 0 1102]),
     (21107, [Entry 1 False, REDUCE sym_fb_decl 9 0 1102]),
     (21109, [Entry 1 True, REDUCE sym_fb_decl 9 0 701]),
     (21111, [Entry 1 False, REDUCE sym_fb_decl 9 0 701]),
     (21113, [Entry 1 True, REDUCE sym_fb_decl 8 0 715]),
     (21115, [Entry 1 False, REDUCE sym_fb_decl 8 0 715]),
     (21117, [Entry 1 True, REDUCE sym_fb_decl 8 0 415]),
     (21119, [Entry 1 False, REDUCE sym_fb_decl 8 0 415]),
     (21121, [Entry 1 True, REDUCE sym_fb_decl 8 0 716]),
     (21123, [Entry 1 False, REDUCE sym_fb_decl 8 0 716]),
     (21125, [Entry 1 True, REDUCE sym_fb_decl 8 0 717]),
     (21127, [Entry 1 False, REDUCE sym_fb_decl 8 0 717]),
     (21129, [Entry 1 True, REDUCE sym_prog_decl 5 0 101]),
     (21131, [Entry 1 False, REDUCE sym_prog_decl 5 0 101]),
     (21133, [Entry 1 True, REDUCE sym_fb_decl 8 0 416]),
     (21135, [Entry 1 False, REDUCE sym_fb_decl 8 0 416]),
     (21137, [Entry 1 True, REDUCE sym_fb_decl 8 0 718]),
     (21139, [Entry 1 False, REDUCE sym_fb_decl 8 0 718]),
     (21141, [Entry 1 True, REDUCE sym_fb_decl 8 0 719]),
     (21143, [Entry 1 False, REDUCE sym_fb_decl 8 0 719]),
     (21145, [Entry 1 True, REDUCE sym_fb_decl 9 0 1103]),
     (21147, [Entry 1 False, REDUCE sym_fb_decl 9 0 1103]),
     (21149, [Entry 1 True, REDUCE sym_fb_decl 9 0 1104]),
     (21151, [Entry 1 False, REDUCE sym_fb_decl 9 0 1104]),
     (21153, [Entry 1 True, REDUCE sym_fb_decl 8 0 720]),
     (21155, [Entry 1 False, REDUCE sym_fb_decl 8 0 720]),
     (21157, [Entry 1 True, REDUCE sym_fb_decl 9 0 1105]),
     (21159, [Entry 1 False, REDUCE sym_fb_decl 9 0 1105]),
     (21161, [Entry 1 True, REDUCE sym_fb_decl 9 0 706]),
     (21163, [Entry 1 False, REDUCE sym_fb_decl 9 0 706]),
     (21165, [Entry 1 True, REDUCE sym_fb_decl 8 0 226]),
     (21167, [Entry 1 False, REDUCE sym_fb_decl 8 0 226]),
     (21169, [Entry 1 True, REDUCE sym_fb_decl 8 0 721]),
     (21171, [Entry 1 False, REDUCE sym_fb_decl 8 0 721]),
     (21173, [Entry 1 True, REDUCE sym_fb_decl 9 0 1106]),
     (21175, [Entry 1 False, REDUCE sym_fb_decl 9 0 1106]),
     (21177, [Entry 1 True, REDUCE sym_fb_decl 9 0 1107]),
     (21179, [Entry 1 False, REDUCE sym_fb_decl 9 0 1107]),
     (21181, [Entry 1 True, REDUCE sym_fb_decl 8 0 722]),
     (21183, [Entry 1 False, REDUCE sym_fb_decl 8 0 722]),
     (21185, [Entry 1 True, REDUCE sym_fb_decl 9 0 708]),
     (21187, [Entry 1 False, REDUCE sym_fb_decl 9 0 708]),
     (21189, [Entry 1 True, REDUCE sym_fb_decl 9 0 1108]),
     (21191, [Entry 1 False, REDUCE sym_fb_decl 9 0 1108]),
     (21193, [Entry 1 True, REDUCE sym_func_decl 6 0 106]),
     (21195, [Entry 1 False, REDUCE sym_func_decl 6 0 106]),
     (21197, [Entry 1 True, REDUCE sym_func_decl 6 0 107]),
     (21199, [Entry 1 False, REDUCE sym_func_decl 6 0 107]),
     (21201, [Entry 1 True, REDUCE sym_fb_decl 9 0 1109]),
     (21203, [Entry 1 False, REDUCE sym_fb_decl 9 0 1109]),
     (21205, [Entry 1 True, REDUCE sym_class_decl 7 0 74]),
     (21207, [Entry 1 False, REDUCE sym_class_decl 7 0 74]),
     (21209, [Entry 1 True, REDUCE sym_func_decl 6 0 108]),
     (21211, [Entry 1 False, REDUCE sym_func_decl 6 0 108]),
     (21213, [Entry 1 True, REDUCE sym_fb_decl 8 0 723]),
     (21215, [Entry 1 False, REDUCE sym_fb_decl 8 0 723]),
     (21217, [Entry 1 True, REDUCE sym_fb_decl 9 0 709])]"

lemma ts_parse_actions_70_tiled: "tiled_from 20919 ts_parse_actions_70 \<and> after_runs 20919 ts_parse_actions_70 = 21219"
  unfolding ts_parse_actions_70_def by (simp cong: runs_weak)

lemma ts_parse_actions_70_ok: "list_all (\<lambda>(i, es). group_ok es) ts_parse_actions_70"
  unfolding ts_parse_actions_70_def
  by (simp add: group_ok_simps entry_action_ok_simps del: One_nat_def group_ok.simps cong: list_all_weak)

text \<open>Lines 491221 to 491370.\<close>

definition ts_parse_actions_71 :: "(nat \<times> TSParseActionEntry list) list" where
  "ts_parse_actions_71 =
    [(21219, [Entry 1 False, REDUCE sym_fb_decl 9 0 709]),
     (21221, [Entry 1 True, REDUCE sym_fb_decl 8 0 417]),
     (21223, [Entry 1 False, REDUCE sym_fb_decl 8 0 417]),
     (21225, [Entry 1 True, REDUCE sym_fb_decl 8 0 724]),
     (21227, [Entry 1 False, REDUCE sym_fb_decl 8 0 724]),
     (21229, [Entry 1 True, REDUCE sym_fb_decl 8 0 418]),
     (21231, [Entry 1 False, REDUCE sym_fb_decl 8 0 418]),
     (21233, [Entry 1 True, REDUCE sym_fb_decl 8 0 725]),
     (21235, [Entry 1 False, REDUCE sym_fb_decl 8 0 725]),
     (21237, [Entry 1 True, REDUCE sym_fb_decl 8 0 726]),
     (21239, [Entry 1 False, REDUCE sym_fb_decl 8 0 726]),
     (21241, [Entry 1 True, REDUCE sym_func_decl 7 0 270]),
     (21243, [Entry 1 False, REDUCE sym_func_decl 7 0 270]),
     (21245, [Entry 1 True, REDUCE sym_func_decl 7 0 271]),
     (21247, [Entry 1 False, REDUCE sym_func_decl 7 0 271]),
     (21249, [Entry 1 True, REDUCE sym_fb_decl 8 0 727]),
     (21251, [Entry 1 False, REDUCE sym_fb_decl 8 0 727]),
     (21253, [Entry 1 True, REDUCE sym_fb_decl 9 0 1110]),
     (21255, [Entry 1 False, REDUCE sym_fb_decl 9 0 1110]),
     (21257, [Entry 1 True, REDUCE sym_func_decl 7 0 272]),
     (21259, [Entry 1 False, REDUCE sym_func_decl 7 0 272]),
     (21261, [Entry 1 True, REDUCE sym_func_decl 7 0 273]),
     (21263, [Entry 1 False, REDUCE sym_func_decl 7 0 273]),
     (21265, [Entry 1 True, REDUCE sym_fb_decl 7 0 153]),
     (21267, [Entry 1 False, REDUCE sym_fb_decl 7 0 153]),
     (21269, [Entry 1 True, REDUCE sym_fb_decl 7 0 274]),
     (21271, [Entry 1 False, REDUCE sym_fb_decl 7 0 274]),
     (21273, [Entry 1 True, REDUCE sym_fb_decl 7 0 275]),
     (21275, [Entry 1 False, REDUCE sym_fb_decl 7 0 275]),
     (21277, [Entry 1 True, REDUCE sym_fb_decl 9 0 1111]),
     (21279, [Entry 1 False, REDUCE sym_fb_decl 9 0 1111]),
     (21281, [Entry 1 True, REDUCE sym_fb_decl 8 0 728]),
     (21283, [Entry 1 False, REDUCE sym_fb_decl 8 0 728]), (21285, [Entry 1 True, SHIFT 32]),
     (21287, [Entry 1 True, REDUCE sym_fb_decl 7 0 276]),
     (21289, [Entry 1 False, REDUCE sym_fb_decl 7 0 276]),
     (21291, [Entry 1 True, REDUCE sym_fb_decl 8 0 419]),
     (21293, [Entry 1 False, REDUCE sym_fb_decl 8 0 419]),
     (21295, [Entry 1 True, REDUCE sym_fb_decl 8 0 729]),
     (21297, [Entry 1 False, REDUCE sym_fb_decl 8 0 729]),
     (21299, [Entry 1 True, REDUCE sym_fb_decl 8 0 730]),
     (21301, [Entry 1 False, REDUCE sym_fb_decl 8 0 730]),
     (21303, [Entry 1 True, REDUCE sym_fb_decl 9 0 710]),
     (21305, [Entry 1 False, REDUCE sym_fb_decl 9 0 710]),
     (21307, [Entry 1 True, REDUCE sym_fb_decl 9 0 1112]),
     (21309, [Entry 1 False, REDUCE sym_fb_decl 9 0 1112]),
     (21311, [Entry 1 True, REDUCE sym_fb_decl 8 0 731]),
     (21313, [Entry 1 False, REDUCE sym_fb_decl 8 0 731]),
     (21315, [Entry 1 True, REDUCE sym_fb_decl 9 0 1113]),
     (21317, [Entry 1 False, REDUCE sym_fb_decl 9 0 1113]),
     (21319, [Entry 1 True, REDUCE sym_class_decl 7 0 318]),
     (21321, [Entry 1 False, REDUCE sym_class_decl 7 0 318]),
     (21323, [Entry 1 True, REDUCE sym_fb_decl 9 0 711]),
     (21325, [Entry 1 False, REDUCE sym_fb_decl 9 0 711]),
     (21327, [Entry 1 True, REDUCE sym_fb_decl 9 0 1114]),
     (21329, [Entry 1 False, REDUCE sym_fb_decl 9 0 1114]),
     (21331, [Entry 1 True, REDUCE sym_fb_decl 9 0 1115]),
     (21333, [Entry 1 False, REDUCE sym_fb_decl 9 0 1115]),
     (21335, [Entry 1 True, REDUCE sym_fb_decl 7 0 277]),
     (21337, [Entry 1 False, REDUCE sym_fb_decl 7 0 277]),
     (21339, [Entry 1 True, REDUCE sym_fb_decl 9 0 890]),
     (21341, [Entry 1 False, REDUCE sym_fb_decl 9 0 890]),
     (21343, [Entry 1 True, REDUCE sym_fb_decl 9 0 576]),
     (21345, [Entry 1 False, REDUCE sym_fb_decl 9 0 576]),
     (21347, [Entry 1 True, REDUCE sym_fb_decl 8 0 732]),
     (21349, [Entry 1 False, REDUCE sym_fb_decl 8 0 732]),
     (21351, [Entry 1 True, REDUCE sym_fb_decl 7 0 154]),
     (21353, [Entry 1 False, REDUCE sym_fb_decl 7 0 154]),
     (21355, [Entry 1 True, REDUCE sym_fb_decl 8 0 733]),
     (21357, [Entry 1 False, REDUCE sym_fb_decl 8 0 733]),
     (21359, [Entry 1 True, REDUCE sym_fb_decl 8 0 422]),
     (21361, [Entry 1 False, REDUCE sym_fb_decl 8 0 422]),
     (21363, [Entry 1 True, REDUCE sym_fb_decl 8 0 734]),
     (21365, [Entry 1 False, REDUCE sym_fb_decl 8 0 734]),
     (21367, [Entry 1 True, REDUCE sym_fb_decl 8 0 735]),
     (21369, [Entry 1 False, REDUCE sym_fb_decl 8 0 735]),
     (21371, [Entry 1 True, REDUCE sym_fb_decl 8 0 424]),
     (21373, [Entry 1 False, REDUCE sym_fb_decl 8 0 424]),
     (21375, [Entry 1 True, REDUCE sym_fb_decl 8 0 736]),
     (21377, [Entry 1 False, REDUCE sym_fb_decl 8 0 736]),
     (21379, [Entry 1 True, REDUCE sym_fb_decl 8 0 737]),
     (21381, [Entry 1 False, REDUCE sym_fb_decl 8 0 737]),
     (21383, [Entry 1 True, REDUCE sym_fb_decl 7 0 278]),
     (21385, [Entry 1 False, REDUCE sym_fb_decl 7 0 278]),
     (21387, [Entry 1 True, REDUCE sym_fb_decl 8 0 425]),
     (21389, [Entry 1 False, REDUCE sym_fb_decl 8 0 425]),
     (21391, [Entry 1 True, REDUCE sym_fb_decl 8 0 738]),
     (21393, [Entry 1 False, REDUCE sym_fb_decl 8 0 738]),
     (21395, [Entry 1 True, REDUCE sym_fb_decl 8 0 739]),
     (21397, [Entry 1 False, REDUCE sym_fb_decl 8 0 739]),
     (21399, [Entry 1 True, REDUCE sym_fb_decl 7 0 279]),
     (21401, [Entry 1 False, REDUCE sym_fb_decl 7 0 279]),
     (21403, [Entry 1 True, REDUCE sym_fb_decl 9 0 1116]),
     (21405, [Entry 1 False, REDUCE sym_fb_decl 9 0 1116]),
     (21407, [Entry 1 True, REDUCE sym_fb_decl 9 0 937]),
     (21409, [Entry 1 False, REDUCE sym_fb_decl 9 0 937]),
     (21411, [Entry 1 True, REDUCE sym_fb_decl 7 0 280]),
     (21413, [Entry 1 False, REDUCE sym_fb_decl 7 0 280]),
     (21415, [Entry 1 True, REDUCE sym_fb_decl 9 0 712]),
     (21417, [Entry 1 False, REDUCE sym_fb_decl 9 0 712]),
     (21419, [Entry 1 True, REDUCE sym_fb_decl 8 0 740]),
     (21421, [Entry 1 False, REDUCE sym_fb_decl 8 0 740]),
     (21423, [Entry 1 True, REDUCE sym_fb_decl 8 0 426]),
     (21425, [Entry 1 False, REDUCE sym_fb_decl 8 0 426]),
     (21427, [Entry 1 True, REDUCE sym_fb_decl 8 0 741]),
     (21429, [Entry 1 False, REDUCE sym_fb_decl 8 0 741]),
     (21431, [Entry 1 True, REDUCE sym_fb_decl 8 0 742]),
     (21433, [Entry 1 False, REDUCE sym_fb_decl 8 0 742]),
     (21435, [Entry 1 True, REDUCE sym_fb_decl 9 0 1117]),
     (21437, [Entry 1 False, REDUCE sym_fb_decl 9 0 1117]),
     (21439, [Entry 1 True, REDUCE sym_fb_decl 8 0 427]),
     (21441, [Entry 1 False, REDUCE sym_fb_decl 8 0 427]),
     (21443, [Entry 1 True, REDUCE sym_fb_decl 8 0 743]),
     (21445, [Entry 1 False, REDUCE sym_fb_decl 8 0 743]),
     (21447, [Entry 1 True, REDUCE sym_fb_decl 8 0 744]),
     (21449, [Entry 1 False, REDUCE sym_fb_decl 8 0 744]),
     (21451, [Entry 1 True, REDUCE sym_fb_decl 9 0 1118]),
     (21453, [Entry 1 False, REDUCE sym_fb_decl 9 0 1118]),
     (21455, [Entry 1 True, REDUCE sym_fb_decl 9 0 714]),
     (21457, [Entry 1 False, REDUCE sym_fb_decl 9 0 714]),
     (21459, [Entry 1 True, REDUCE sym_fb_decl 8 0 745]),
     (21461, [Entry 1 False, REDUCE sym_fb_decl 8 0 745]),
     (21463, [Entry 1 True, REDUCE sym_fb_decl 9 0 1119]),
     (21465, [Entry 1 False, REDUCE sym_fb_decl 9 0 1119]),
     (21467, [Entry 1 True, REDUCE sym_fb_decl 8 0 38]),
     (21469, [Entry 1 False, REDUCE sym_fb_decl 8 0 38]),
     (21471, [Entry 1 True, REDUCE sym_fb_decl 8 0 746]),
     (21473, [Entry 1 False, REDUCE sym_fb_decl 8 0 746]),
     (21475, [Entry 1 True, REDUCE sym_fb_decl 9 0 1120]),
     (21477, [Entry 1 False, REDUCE sym_fb_decl 9 0 1120]),
     (21479, [Entry 1 True, REDUCE sym_class_decl 7 0 369]),
     (21481, [Entry 1 False, REDUCE sym_class_decl 7 0 369]),
     (21483, [Entry 1 True, REDUCE sym_fb_decl 8 0 747]),
     (21485, [Entry 1 False, REDUCE sym_fb_decl 8 0 747]),
     (21487, [Entry 1 True, REDUCE sym_class_decl 7 0 201]),
     (21489, [Entry 1 False, REDUCE sym_class_decl 7 0 201]),
     (21491, [Entry 1 True, REDUCE sym_fb_decl 7 0 281]),
     (21493, [Entry 1 False, REDUCE sym_fb_decl 7 0 281]),
     (21495, [Entry 1 True, REDUCE sym_fb_decl 9 0 1121]),
     (21497, [Entry 1 False, REDUCE sym_fb_decl 9 0 1121]),
     (21499, [Entry 1 True, REDUCE sym_fb_decl 8 0 748]),
     (21501, [Entry 1 False, REDUCE sym_fb_decl 8 0 748]),
     (21503, [Entry 1 True, REDUCE sym_fb_decl 7 0 282]),
     (21505, [Entry 1 False, REDUCE sym_fb_decl 7 0 282]),
     (21507, [Entry 1 True, REDUCE sym_fb_decl 8 0 428]),
     (21509, [Entry 1 False, REDUCE sym_fb_decl 8 0 428]),
     (21511, [Entry 1 True, REDUCE sym_fb_decl 8 0 749]),
     (21513, [Entry 1 False, REDUCE sym_fb_decl 8 0 749]),
     (21515, [Entry 1 True, REDUCE sym_fb_decl 8 0 750]),
     (21517, [Entry 1 False, REDUCE sym_fb_decl 8 0 750])]"

lemma ts_parse_actions_71_tiled: "tiled_from 21219 ts_parse_actions_71 \<and> after_runs 21219 ts_parse_actions_71 = 21519"
  unfolding ts_parse_actions_71_def by (simp cong: runs_weak)

lemma ts_parse_actions_71_ok: "list_all (\<lambda>(i, es). group_ok es) ts_parse_actions_71"
  unfolding ts_parse_actions_71_def
  by (simp add: group_ok_simps entry_action_ok_simps del: One_nat_def group_ok.simps cong: list_all_weak)

text \<open>Lines 491371 to 491520.\<close>

definition ts_parse_actions_72 :: "(nat \<times> TSParseActionEntry list) list" where
  "ts_parse_actions_72 =
    [(21519, [Entry 1 True, REDUCE sym_fb_decl 8 0 751]),
     (21521, [Entry 1 False, REDUCE sym_fb_decl 8 0 751]),
     (21523, [Entry 1 True, REDUCE sym_fb_decl 8 0 752]),
     (21525, [Entry 1 False, REDUCE sym_fb_decl 8 0 752]),
     (21527, [Entry 1 True, REDUCE sym_fb_decl 8 0 433]),
     (21529, [Entry 1 False, REDUCE sym_fb_decl 8 0 433]),
     (21531, [Entry 1 True, REDUCE sym_fb_decl 8 0 753]),
     (21533, [Entry 1 False, REDUCE sym_fb_decl 8 0 753]),
     (21535, [Entry 1 True, REDUCE sym_fb_decl 8 0 754]),
     (21537, [Entry 1 False, REDUCE sym_fb_decl 8 0 754]),
     (21539, [Entry 1 True, REDUCE sym_class_decl 7 0 175]),
     (21541, [Entry 1 False, REDUCE sym_class_decl 7 0 175]),
     (21543, [Entry 1 True, REDUCE sym_class_decl 7 0 323]),
     (21545, [Entry 1 False, REDUCE sym_class_decl 7 0 323]),
     (21547, [Entry 1 True, REDUCE sym_fb_decl 9 0 938]),
     (21549, [Entry 1 False, REDUCE sym_fb_decl 9 0 938]),
     (21551, [Entry 1 True, REDUCE sym_fb_decl 9 0 578]),
     (21553, [Entry 1 False, REDUCE sym_fb_decl 9 0 578]),
     (21555, [Entry 1 True, REDUCE sym_fb_decl 9 0 939]),
     (21557, [Entry 1 False, REDUCE sym_fb_decl 9 0 939]),
     (21559, [Entry 1 True, REDUCE sym_fb_decl 7 0 283]),
     (21561, [Entry 1 False, REDUCE sym_fb_decl 7 0 283]),
     (21563, [Entry 1 True, REDUCE sym_class_decl 7 0 370]),
     (21565, [Entry 1 False, REDUCE sym_class_decl 7 0 370]),
     (21567, [Entry 1 True, REDUCE sym_fb_decl 5 0 28]),
     (21569, [Entry 1 False, REDUCE sym_fb_decl 5 0 28]),
     (21571, [Entry 1 True, REDUCE sym_fb_decl 9 0 1122]),
     (21573, [Entry 1 False, REDUCE sym_fb_decl 9 0 1122]),
     (21575, [Entry 1 True, REDUCE sym_class_decl 7 0 176]),
     (21577, [Entry 1 False, REDUCE sym_class_decl 7 0 176]),
     (21579, [Entry 1 True, REDUCE sym_func_decl 3 0 5]),
     (21581, [Entry 1 False, REDUCE sym_func_decl 3 0 5]),
     (21583, [Entry 1 True, REDUCE sym_fb_decl 7 0 284]),
     (21585, [Entry 1 False, REDUCE sym_fb_decl 7 0 284]),
     (21587, [Entry 1 True, REDUCE sym_fb_decl 7 0 156]),
     (21589, [Entry 1 False, REDUCE sym_fb_decl 7 0 156]),
     (21591, [Entry 1 True, REDUCE sym_fb_decl 9 0 1123]),
     (21593, [Entry 1 False, REDUCE sym_fb_decl 9 0 1123]),
     (21595, [Entry 1 True, REDUCE sym_fb_decl 7 0 285]),
     (21597, [Entry 1 False, REDUCE sym_fb_decl 7 0 285]),
     (21599, [Entry 1 True, REDUCE sym_fb_decl 7 0 286]),
     (21601, [Entry 1 False, REDUCE sym_fb_decl 7 0 286]),
     (21603, [Entry 1 True, REDUCE sym_func_decl 4 0 25]),
     (21605, [Entry 1 False, REDUCE sym_func_decl 4 0 25]),
     (21607, [Entry 1 True, REDUCE sym_fb_decl 9 0 717]),
     (21609, [Entry 1 False, REDUCE sym_fb_decl 9 0 717]),
     (21611, [Entry 1 True, REDUCE sym_fb_decl 9 0 1124]),
     (21613, [Entry 1 False, REDUCE sym_fb_decl 9 0 1124]),
     (21615, [Entry 1 True, REDUCE sym_fb_decl 9 0 1125]),
     (21617, [Entry 1 False, REDUCE sym_fb_decl 9 0 1125]),
     (21619, [Entry 1 True, REDUCE sym_fb_decl 9 0 719]),
     (21621, [Entry 1 False, REDUCE sym_fb_decl 9 0 719]),
     (21623, [Entry 1 True, REDUCE sym_fb_decl 9 0 1126]),
     (21625, [Entry 1 False, REDUCE sym_fb_decl 9 0 1126]),
     (21627, [Entry 1 True, REDUCE sym_fb_decl 9 0 1127]),
     (21629, [Entry 1 False, REDUCE sym_fb_decl 9 0 1127]),
     (21631, [Entry 1 True, REDUCE sym_fb_decl 7 0 157]),
     (21633, [Entry 1 False, REDUCE sym_fb_decl 7 0 157]),
     (21635, [Entry 1 True, REDUCE sym_fb_decl 7 0 287]),
     (21637, [Entry 1 False, REDUCE sym_fb_decl 7 0 287]),
     (21639, [Entry 1 True, REDUCE sym_class_decl 7 0 327]),
     (21641, [Entry 1 False, REDUCE sym_class_decl 7 0 327]),
     (21643, [Entry 1 True, REDUCE sym_fb_decl 9 0 720]),
     (21645, [Entry 1 False, REDUCE sym_fb_decl 9 0 720]),
     (21647, [Entry 1 True, REDUCE sym_fb_decl 9 0 1128]),
     (21649, [Entry 1 False, REDUCE sym_fb_decl 9 0 1128]),
     (21651, [Entry 1 True, REDUCE sym_fb_decl 9 0 1129]),
     (21653, [Entry 1 False, REDUCE sym_fb_decl 9 0 1129]),
     (21655, [Entry 1 True, REDUCE sym_fb_decl 9 0 940]),
     (21657, [Entry 1 False, REDUCE sym_fb_decl 9 0 940]),
     (21659, [Entry 1 True, REDUCE sym_fb_decl 7 0 288]),
     (21661, [Entry 1 False, REDUCE sym_fb_decl 7 0 288]),
     (21663, [Entry 1 True, REDUCE sym_fb_decl 9 0 891]),
     (21665, [Entry 1 False, REDUCE sym_fb_decl 9 0 891]),
     (21667, [Entry 1 True, REDUCE sym_fb_decl 7 0 329]),
     (21669, [Entry 1 False, REDUCE sym_fb_decl 7 0 329]),
     (21671, [Entry 1 True, REDUCE sym_fb_decl 9 0 941]),
     (21673, [Entry 1 False, REDUCE sym_fb_decl 9 0 941]),
     (21675, [Entry 1 True, REDUCE sym_class_decl 7 0 371]),
     (21677, [Entry 1 False, REDUCE sym_class_decl 7 0 371]),
     (21679, [Entry 1 True, REDUCE sym_fb_decl 9 0 1130]),
     (21681, [Entry 1 False, REDUCE sym_fb_decl 9 0 1130]),
     (21683, [Entry 1 True, REDUCE sym_fb_decl 9 0 721]),
     (21685, [Entry 1 False, REDUCE sym_fb_decl 9 0 721]),
     (21687, [Entry 1 True, REDUCE sym_fb_decl 9 0 1131]),
     (21689, [Entry 1 False, REDUCE sym_fb_decl 9 0 1131]),
     (21691, [Entry 1 True, REDUCE sym_fb_decl 9 0 1132]),
     (21693, [Entry 1 False, REDUCE sym_fb_decl 9 0 1132]),
     (21695, [Entry 1 True, REDUCE sym_class_decl 7 0 202]),
     (21697, [Entry 1 False, REDUCE sym_class_decl 7 0 202]),
     (21699, [Entry 1 True, REDUCE sym_fb_decl 9 0 722]),
     (21701, [Entry 1 False, REDUCE sym_fb_decl 9 0 722]),
     (21703, [Entry 1 True, REDUCE sym_fb_decl 9 0 1133]),
     (21705, [Entry 1 False, REDUCE sym_fb_decl 9 0 1133]),
     (21707, [Entry 1 True, REDUCE sym_fb_decl 9 0 1134]),
     (21709, [Entry 1 False, REDUCE sym_fb_decl 9 0 1134]),
     (21711, [Entry 1 True, REDUCE sym_class_decl 7 0 336]),
     (21713, [Entry 1 False, REDUCE sym_class_decl 7 0 336]),
     (21715, [Entry 1 True, REDUCE sym_fb_decl 9 0 546]),
     (21717, [Entry 1 False, REDUCE sym_fb_decl 9 0 546]),
     (21719, [Entry 1 True, REDUCE sym_fb_decl 9 0 1135]),
     (21721, [Entry 1 False, REDUCE sym_fb_decl 9 0 1135]),
     (21723, [Entry 1 True, REDUCE sym_fb_decl 7 0 330]),
     (21725, [Entry 1 False, REDUCE sym_fb_decl 7 0 330]),
     (21727, [Entry 1 True, REDUCE sym_fb_decl 9 0 226]),
     (21729, [Entry 1 False, REDUCE sym_fb_decl 9 0 226]),
     (21731, [Entry 1 True, REDUCE sym_fb_decl 9 0 1136]),
     (21733, [Entry 1 False, REDUCE sym_fb_decl 9 0 1136]),
     (21735, [Entry 1 True, REDUCE sym_fb_decl 7 0 289]),
     (21737, [Entry 1 False, REDUCE sym_fb_decl 7 0 289]),
     (21739, [Entry 1 True, REDUCE sym_fb_decl 7 0 179]),
     (21741, [Entry 1 False, REDUCE sym_fb_decl 7 0 179]),
     (21743, [Entry 1 True, REDUCE sym_class_decl 7 0 183]),
     (21745, [Entry 1 False, REDUCE sym_class_decl 7 0 183]),
     (21747, [Entry 1 True, REDUCE sym_fb_decl 7 0 28]),
     (21749, [Entry 1 False, REDUCE sym_fb_decl 7 0 28]),
     (21751, [Entry 1 True, REDUCE sym_fb_decl 7 0 290]),
     (21753, [Entry 1 False, REDUCE sym_fb_decl 7 0 290]),
     (21755, [Entry 1 True, REDUCE sym_fb_decl 9 0 1137]),
     (21757, [Entry 1 False, REDUCE sym_fb_decl 9 0 1137]),
     (21759, [Entry 1 True, REDUCE sym_class_decl 7 0 372]),
     (21761, [Entry 1 False, REDUCE sym_class_decl 7 0 372]),
     (21763, [Entry 1 True, REDUCE sym_class_decl 7 0 5]),
     (21765, [Entry 1 False, REDUCE sym_class_decl 7 0 5]),
     (21767, [Entry 1 True, REDUCE sym_class_decl 7 0 343]),
     (21769, [Entry 1 False, REDUCE sym_class_decl 7 0 343]),
     (21771, [Entry 1 True, REDUCE sym_fb_decl 9 0 1138]),
     (21773, [Entry 1 False, REDUCE sym_fb_decl 9 0 1138]),
     (21775, [Entry 1 True, REDUCE sym_fb_decl 7 0 331]),
     (21777, [Entry 1 False, REDUCE sym_fb_decl 7 0 331]),
     (21779, [Entry 1 True, REDUCE sym_fb_decl 9 0 723]),
     (21781, [Entry 1 False, REDUCE sym_fb_decl 9 0 723]),
     (21783, [Entry 1 True, REDUCE sym_fb_decl 9 0 1139]),
     (21785, [Entry 1 False, REDUCE sym_fb_decl 9 0 1139]),
     (21787, [Entry 1 True, REDUCE sym_fb_decl 9 0 1140]),
     (21789, [Entry 1 False, REDUCE sym_fb_decl 9 0 1140]),
     (21791, [Entry 1 True, REDUCE sym_fb_decl 9 0 1141]),
     (21793, [Entry 1 False, REDUCE sym_fb_decl 9 0 1141]),
     (21795, [Entry 1 True, REDUCE sym_fb_decl 9 0 726]),
     (21797, [Entry 1 False, REDUCE sym_fb_decl 9 0 726]),
     (21799, [Entry 1 True, REDUCE sym_fb_decl 9 0 1142]),
     (21801, [Entry 1 False, REDUCE sym_fb_decl 9 0 1142]),
     (21803, [Entry 1 True, REDUCE sym_fb_decl 9 0 1143]),
     (21805, [Entry 1 False, REDUCE sym_fb_decl 9 0 1143]),
     (21807, [Entry 1 True, REDUCE sym_class_decl 7 0 373]),
     (21809, [Entry 1 False, REDUCE sym_class_decl 7 0 373]),
     (21811, [Entry 1 True, REDUCE sym_fb_decl 9 0 727]),
     (21813, [Entry 1 False, REDUCE sym_fb_decl 9 0 727]),
     (21815, [Entry 1 True, REDUCE sym_fb_decl 9 0 1144]),
     (21817, [Entry 1 False, REDUCE sym_fb_decl 9 0 1144])]"

lemma ts_parse_actions_72_tiled: "tiled_from 21519 ts_parse_actions_72 \<and> after_runs 21519 ts_parse_actions_72 = 21819"
  unfolding ts_parse_actions_72_def by (simp cong: runs_weak)

lemma ts_parse_actions_72_ok: "list_all (\<lambda>(i, es). group_ok es) ts_parse_actions_72"
  unfolding ts_parse_actions_72_def
  by (simp add: group_ok_simps entry_action_ok_simps del: One_nat_def group_ok.simps cong: list_all_weak)

text \<open>Lines 491521 to 491670.\<close>

definition ts_parse_actions_73 :: "(nat \<times> TSParseActionEntry list) list" where
  "ts_parse_actions_73 =
    [(21819, [Entry 1 True, REDUCE sym_fb_decl 9 0 1145]),
     (21821, [Entry 1 False, REDUCE sym_fb_decl 9 0 1145]),
     (21823, [Entry 1 True, REDUCE sym_class_decl 7 0 203]),
     (21825, [Entry 1 False, REDUCE sym_class_decl 7 0 203]),
     (21827, [Entry 1 True, REDUCE sym_class_decl 7 0 204]),
     (21829, [Entry 1 False, REDUCE sym_class_decl 7 0 204]),
     (21831, [Entry 1 True, REDUCE sym_fb_decl 9 0 1146]),
     (21833, [Entry 1 False, REDUCE sym_fb_decl 9 0 1146]),
     (21835, [Entry 1 True, REDUCE sym_class_decl 7 0 374]),
     (21837, [Entry 1 False, REDUCE sym_class_decl 7 0 374]),
     (21839, [Entry 1 True, REDUCE sym_fb_decl 7 0 291]),
     (21841, [Entry 1 False, REDUCE sym_fb_decl 7 0 291]),
     (21843, [Entry 1 True, REDUCE sym_fb_decl 9 0 418]),
     (21845, [Entry 1 False, REDUCE sym_fb_decl 9 0 418]),
     (21847, [Entry 1 True, REDUCE sym_fb_decl 9 0 1147]),
     (21849, [Entry 1 False, REDUCE sym_fb_decl 9 0 1147]),
     (21851, [Entry 1 True, REDUCE sym_fb_decl 7 0 332]),
     (21853, [Entry 1 False, REDUCE sym_fb_decl 7 0 332]),
     (21855, [Entry 1 True, REDUCE sym_fb_decl 7 0 181]),
     (21857, [Entry 1 False, REDUCE sym_fb_decl 7 0 181]),
     (21859, [Entry 1 True, REDUCE sym_fb_decl 9 0 1148]),
     (21861, [Entry 1 False, REDUCE sym_fb_decl 9 0 1148]),
     (21863, [Entry 1 True, REDUCE sym_fb_decl 7 0 333]),
     (21865, [Entry 1 False, REDUCE sym_fb_decl 7 0 333]),
     (21867, [Entry 1 True, REDUCE sym_class_decl 7 0 375]),
     (21869, [Entry 1 False, REDUCE sym_class_decl 7 0 375]),
     (21871, [Entry 1 True, REDUCE sym_fb_decl 9 0 942]),
     (21873, [Entry 1 False, REDUCE sym_fb_decl 9 0 942]),
     (21875, [Entry 1 True, REDUCE sym_fb_decl 9 0 1149]),
     (21877, [Entry 1 False, REDUCE sym_fb_decl 9 0 1149]),
     (21879, [Entry 1 True, REDUCE sym_class_decl 7 0 205]),
     (21881, [Entry 1 False, REDUCE sym_class_decl 7 0 205]),
     (21883, [Entry 1 True, REDUCE sym_fb_decl 9 0 728]),
     (21885, [Entry 1 False, REDUCE sym_fb_decl 9 0 728]),
     (21887, [Entry 1 True, REDUCE sym_fb_decl 9 0 1150]),
     (21889, [Entry 1 False, REDUCE sym_fb_decl 9 0 1150]),
     (21891, [Entry 1 True, REDUCE sym_fb_decl 9 0 1151]),
     (21893, [Entry 1 False, REDUCE sym_fb_decl 9 0 1151]),
     (21895, [Entry 1 True, REDUCE sym_class_decl 7 0 376]),
     (21897, [Entry 1 False, REDUCE sym_class_decl 7 0 376]),
     (21899, [Entry 1 True, REDUCE sym_fb_decl 7 0 334]),
     (21901, [Entry 1 False, REDUCE sym_fb_decl 7 0 334]),
     (21903, [Entry 1 True, REDUCE sym_fb_decl 9 0 943]),
     (21905, [Entry 1 False, REDUCE sym_fb_decl 9 0 943]),
     (21907, [Entry 1 True, REDUCE sym_fb_decl 9 0 581]),
     (21909, [Entry 1 False, REDUCE sym_fb_decl 9 0 581]),
     (21911, [Entry 1 True, REDUCE sym_fb_decl 9 0 944]),
     (21913, [Entry 1 False, REDUCE sym_fb_decl 9 0 944]),
     (21915, [Entry 1 True, REDUCE sym_func_decl 4 0 26]),
     (21917, [Entry 1 False, REDUCE sym_func_decl 4 0 26]),
     (21919, [Entry 1 True, REDUCE sym_fb_decl 9 0 1152]),
     (21921, [Entry 1 False, REDUCE sym_fb_decl 9 0 1152]),
     (21923, [Entry 1 True, REDUCE sym_fb_decl 9 0 730]),
     (21925, [Entry 1 False, REDUCE sym_fb_decl 9 0 730]),
     (21927, [Entry 1 True, REDUCE sym_fb_decl 9 0 1153]),
     (21929, [Entry 1 False, REDUCE sym_fb_decl 9 0 1153]),
     (21931, [Entry 1 True, REDUCE sym_fb_decl 9 0 1154]),
     (21933, [Entry 1 False, REDUCE sym_fb_decl 9 0 1154]),
     (21935, [Entry 1 True, REDUCE sym_class_decl 7 0 377]),
     (21937, [Entry 1 False, REDUCE sym_class_decl 7 0 377]),
     (21939, [Entry 1 True, REDUCE sym_fb_decl 9 0 731]),
     (21941, [Entry 1 False, REDUCE sym_fb_decl 9 0 731]),
     (21943, [Entry 1 True, REDUCE sym_fb_decl 9 0 1155]),
     (21945, [Entry 1 False, REDUCE sym_fb_decl 9 0 1155]),
     (21947, [Entry 1 True, REDUCE sym_fb_decl 9 0 1156]),
     (21949, [Entry 1 False, REDUCE sym_fb_decl 9 0 1156]),
     (21951, [Entry 1 True, REDUCE sym_class_decl 7 0 378]),
     (21953, [Entry 1 False, REDUCE sym_class_decl 7 0 378]),
     (21955, [Entry 1 True, REDUCE sym_fb_decl 9 0 945]),
     (21957, [Entry 1 False, REDUCE sym_fb_decl 9 0 945]),
     (21959, [Entry 1 True, REDUCE sym_fb_decl 9 0 1157]),
     (21961, [Entry 1 False, REDUCE sym_fb_decl 9 0 1157]),
     (21963, [Entry 1 True, REDUCE sym_class_decl 4 0 5]),
     (21965, [Entry 1 False, REDUCE sym_class_decl 4 0 5]),
     (21967, [Entry 1 True, REDUCE sym_fb_decl 9 0 583]),
     (21969, [Entry 1 False, REDUCE sym_fb_decl 9 0 583]),
     (21971, [Entry 1 True, REDUCE sym_fb_decl 9 0 419]),
     (21973, [Entry 1 False, REDUCE sym_fb_decl 9 0 419]),
     (21975, [Entry 1 True, REDUCE sym_fb_decl 7 0 292]),
     (21977, [Entry 1 False, REDUCE sym_fb_decl 7 0 292]),
     (21979, [Entry 1 True, REDUCE sym_func_decl 4 0 27]),
     (21981, [Entry 1 False, REDUCE sym_func_decl 4 0 27]),
     (21983, [Entry 1 True, REDUCE sym_fb_decl 7 0 158]),
     (21985, [Entry 1 False, REDUCE sym_fb_decl 7 0 158]),
     (21987, [Entry 1 True, REDUCE sym_fb_decl 7 0 293]),
     (21989, [Entry 1 False, REDUCE sym_fb_decl 7 0 293]),
     (21991, [Entry 1 True, REDUCE sym_fb_decl 7 0 294]),
     (21993, [Entry 1 False, REDUCE sym_fb_decl 7 0 294]),
     (21995, [Entry 1 True, REDUCE sym_func_decl 9 0 799]),
     (21997, [Entry 1 False, REDUCE sym_func_decl 9 0 799]),
     (21999, [Entry 1 True, REDUCE sym_fb_decl 9 0 800]),
     (22001, [Entry 1 False, REDUCE sym_fb_decl 9 0 800]),
     (22003, [Entry 1 True, REDUCE sym_fb_decl 9 0 482]),
     (22005, [Entry 1 False, REDUCE sym_fb_decl 9 0 482]),
     (22007, [Entry 1 True, REDUCE sym_fb_decl 9 0 801]),
     (22009, [Entry 1 False, REDUCE sym_fb_decl 9 0 801]),
     (22011, [Entry 1 True, REDUCE sym_fb_decl 9 0 802]),
     (22013, [Entry 1 False, REDUCE sym_fb_decl 9 0 802]),
     (22015, [Entry 1 True, REDUCE sym_fb_decl 9 0 484]),
     (22017, [Entry 1 False, REDUCE sym_fb_decl 9 0 484]),
     (22019, [Entry 1 True, REDUCE sym_fb_decl 9 0 803]),
     (22021, [Entry 1 False, REDUCE sym_fb_decl 9 0 803]),
     (22023, [Entry 1 True, REDUCE sym_fb_decl 9 0 804]),
     (22025, [Entry 1 False, REDUCE sym_fb_decl 9 0 804]),
     (22027, [Entry 1 True, REDUCE sym_fb_decl 7 0 160]),
     (22029, [Entry 1 False, REDUCE sym_fb_decl 7 0 160]),
     (22031, [Entry 1 True, REDUCE sym_fb_decl 9 0 485]),
     (22033, [Entry 1 False, REDUCE sym_fb_decl 9 0 485]),
     (22035, [Entry 1 True, REDUCE sym_fb_decl 9 0 805]),
     (22037, [Entry 1 False, REDUCE sym_fb_decl 9 0 805]),
     (22039, [Entry 1 True, REDUCE sym_fb_decl 9 0 806]),
     (22041, [Entry 1 False, REDUCE sym_fb_decl 9 0 806]),
     (22043, [Entry 1 True, REDUCE sym_fb_decl 9 0 486]),
     (22045, [Entry 1 False, REDUCE sym_fb_decl 9 0 486]),
     (22047, [Entry 1 True, REDUCE sym_fb_decl 9 0 807]),
     (22049, [Entry 1 False, REDUCE sym_fb_decl 9 0 807]),
     (22051, [Entry 1 True, REDUCE sym_fb_decl 9 0 808]),
     (22053, [Entry 1 False, REDUCE sym_fb_decl 9 0 808]),
     (22055, [Entry 1 True, REDUCE sym_fb_decl 7 0 295]),
     (22057, [Entry 1 False, REDUCE sym_fb_decl 7 0 295]),
     (22059, [Entry 1 True, REDUCE sym_fb_decl 9 0 487]),
     (22061, [Entry 1 False, REDUCE sym_fb_decl 9 0 487]),
     (22063, [Entry 1 True, REDUCE sym_fb_decl 9 0 809]),
     (22065, [Entry 1 False, REDUCE sym_fb_decl 9 0 809]),
     (22067, [Entry 1 True, REDUCE sym_fb_decl 9 0 810]),
     (22069, [Entry 1 False, REDUCE sym_fb_decl 9 0 810]),
     (22071, [Entry 1 True, REDUCE sym_fb_decl 7 0 296]),
     (22073, [Entry 1 False, REDUCE sym_fb_decl 7 0 296]),
     (22075, [Entry 1 True, REDUCE sym_fb_decl 7 0 162]),
     (22077, [Entry 1 False, REDUCE sym_fb_decl 7 0 162]),
     (22079, [Entry 1 True, REDUCE sym_fb_decl 9 0 811]),
     (22081, [Entry 1 False, REDUCE sym_fb_decl 9 0 811]),
     (22083, [Entry 1 True, REDUCE sym_fb_decl 9 0 1158]),
     (22085, [Entry 1 False, REDUCE sym_fb_decl 9 0 1158]),
     (22087, [Entry 1 True, REDUCE sym_class_decl 7 0 379]),
     (22089, [Entry 1 False, REDUCE sym_class_decl 7 0 379]),
     (22091, [Entry 1 True, REDUCE sym_fb_decl 7 0 297]),
     (22093, [Entry 1 False, REDUCE sym_fb_decl 7 0 297]),
     (22095, [Entry 1 True, REDUCE sym_fb_decl 9 0 488]),
     (22097, [Entry 1 False, REDUCE sym_fb_decl 9 0 488]),
     (22099, [Entry 1 True, REDUCE sym_fb_decl 9 0 946]),
     (22101, [Entry 1 False, REDUCE sym_fb_decl 9 0 946]),
     (22103, [Entry 1 True, REDUCE sym_fb_decl 9 0 812]),
     (22105, [Entry 1 False, REDUCE sym_fb_decl 9 0 812]),
     (22107, [Entry 1 True, REDUCE sym_fb_decl 9 0 1159]),
     (22109, [Entry 1 False, REDUCE sym_fb_decl 9 0 1159]),
     (22111, [Entry 1 True, REDUCE sym_fb_decl 9 0 947]),
     (22113, [Entry 1 False, REDUCE sym_fb_decl 9 0 947]),
     (22115, [Entry 1 True, REDUCE sym_fb_decl 9 0 813]),
     (22117, [Entry 1 False, REDUCE sym_fb_decl 9 0 813])]"

lemma ts_parse_actions_73_tiled: "tiled_from 21819 ts_parse_actions_73 \<and> after_runs 21819 ts_parse_actions_73 = 22119"
  unfolding ts_parse_actions_73_def by (simp cong: runs_weak)

lemma ts_parse_actions_73_ok: "list_all (\<lambda>(i, es). group_ok es) ts_parse_actions_73"
  unfolding ts_parse_actions_73_def
  by (simp add: group_ok_simps entry_action_ok_simps del: One_nat_def group_ok.simps cong: list_all_weak)

text \<open>Lines 491671 to 491820.\<close>

definition ts_parse_actions_74 :: "(nat \<times> TSParseActionEntry list) list" where
  "ts_parse_actions_74 =
    [(22119, [Entry 1 True, REDUCE sym_fb_decl 9 0 490]),
     (22121, [Entry 1 False, REDUCE sym_fb_decl 9 0 490]),
     (22123, [Entry 1 True, REDUCE sym_fb_decl 9 0 814]),
     (22125, [Entry 1 False, REDUCE sym_fb_decl 9 0 814]),
     (22127, [Entry 1 True, REDUCE sym_fb_decl 9 0 815]),
     (22129, [Entry 1 False, REDUCE sym_fb_decl 9 0 815]),
     (22131, [Entry 1 True, REDUCE sym_fb_decl 6 0 158]),
     (22133, [Entry 1 False, REDUCE sym_fb_decl 6 0 158]),
     (22135, [Entry 1 True, REDUCE sym_fb_decl 9 0 892]),
     (22137, [Entry 1 False, REDUCE sym_fb_decl 9 0 892]),
     (22139, [Entry 1 True, REDUCE sym_fb_decl 7 0 298]),
     (22141, [Entry 1 False, REDUCE sym_fb_decl 7 0 298]),
     (22143, [Entry 1 True, REDUCE sym_class_decl 7 0 206]),
     (22145, [Entry 1 False, REDUCE sym_class_decl 7 0 206]),
     (22147, [Entry 1 True, REDUCE sym_fb_decl 9 0 816]),
     (22149, [Entry 1 False, REDUCE sym_fb_decl 9 0 816]),
     (22151, [Entry 1 True, REDUCE sym_fb_decl 7 0 163]),
     (22153, [Entry 1 False, REDUCE sym_fb_decl 7 0 163]),
     (22155, [Entry 1 True, REDUCE sym_class_decl 7 0 380]),
     (22157, [Entry 1 False, REDUCE sym_class_decl 7 0 380]),
     (22159, [Entry 1 True, REDUCE sym_fb_decl 5 0 69]),
     (22161, [Entry 1 False, REDUCE sym_fb_decl 5 0 69]),
     (22163, [Entry 1 True, REDUCE sym_fb_decl 7 0 299]),
     (22165, [Entry 1 False, REDUCE sym_fb_decl 7 0 299]),
     (22167, [Entry 1 True, REDUCE sym_fb_decl 7 0 300]),
     (22169, [Entry 1 False, REDUCE sym_fb_decl 7 0 300]),
     (22171, [Entry 1 True, REDUCE sym_fb_decl 7 0 301]),
     (22173, [Entry 1 False, REDUCE sym_fb_decl 7 0 301]),
     (22175, [Entry 1 True, REDUCE sym_fb_decl 7 0 166]),
     (22177, [Entry 1 False, REDUCE sym_fb_decl 7 0 166]),
     (22179, [Entry 1 True, REDUCE sym_fb_decl 7 0 302]),
     (22181, [Entry 1 False, REDUCE sym_fb_decl 7 0 302]),
     (22183, [Entry 1 True, REDUCE sym_fb_decl 7 0 303]),
     (22185, [Entry 1 False, REDUCE sym_fb_decl 7 0 303]),
     (22187, [Entry 1 True, REDUCE sym_fb_decl 9 0 817]),
     (22189, [Entry 1 False, REDUCE sym_fb_decl 9 0 817]),
     (22191, [Entry 1 True, REDUCE sym_class_decl 7 0 25]),
     (22193, [Entry 1 False, REDUCE sym_class_decl 7 0 25]),
     (22195, [Entry 1 True, REDUCE sym_fb_decl 9 0 1160]),
     (22197, [Entry 1 False, REDUCE sym_fb_decl 9 0 1160]),
     (22199, [Entry 1 True, REDUCE sym_fb_decl 9 0 818]),
     (22201, [Entry 1 False, REDUCE sym_fb_decl 9 0 818]),
     (22203, [Entry 1 True, REDUCE sym_fb_decl 9 0 493]),
     (22205, [Entry 1 False, REDUCE sym_fb_decl 9 0 493]),
     (22207, [Entry 1 True, REDUCE sym_fb_decl 9 0 819]),
     (22209, [Entry 1 False, REDUCE sym_fb_decl 9 0 819]),
     (22211, [Entry 1 True, REDUCE sym_fb_decl 9 0 820]),
     (22213, [Entry 1 False, REDUCE sym_fb_decl 9 0 820]),
     (22215, [Entry 1 True, REDUCE sym_class_decl 7 0 381]),
     (22217, [Entry 1 False, REDUCE sym_class_decl 7 0 381]),
     (22219, [Entry 1 True, REDUCE sym_fb_decl 9 0 495]),
     (22221, [Entry 1 False, REDUCE sym_fb_decl 9 0 495]),
     (22223, [Entry 1 True, REDUCE sym_fb_decl 9 0 821]),
     (22225, [Entry 1 False, REDUCE sym_fb_decl 9 0 821]),
     (22227, [Entry 1 True, REDUCE sym_fb_decl 9 0 822]),
     (22229, [Entry 1 False, REDUCE sym_fb_decl 9 0 822]),
     (22231, [Entry 1 True, REDUCE sym_fb_decl 7 0 167]),
     (22233, [Entry 1 False, REDUCE sym_fb_decl 7 0 167]),
     (22235, [Entry 1 True, REDUCE sym_fb_decl 9 0 496]),
     (22237, [Entry 1 False, REDUCE sym_fb_decl 9 0 496]),
     (22239, [Entry 1 True, REDUCE sym_fb_decl 9 0 823]),
     (22241, [Entry 1 False, REDUCE sym_fb_decl 9 0 823]),
     (22243, [Entry 1 True, REDUCE sym_fb_decl 9 0 824]),
     (22245, [Entry 1 False, REDUCE sym_fb_decl 9 0 824]),
     (22247, [Entry 1 True, REDUCE sym_fb_decl 7 0 304]),
     (22249, [Entry 1 False, REDUCE sym_fb_decl 7 0 304]),
     (22251, [Entry 1 True, REDUCE sym_fb_decl 7 0 305]),
     (22253, [Entry 1 False, REDUCE sym_fb_decl 7 0 305]),
     (22255, [Entry 1 True, REDUCE sym_fb_decl 4 0 28]),
     (22257, [Entry 1 False, REDUCE sym_fb_decl 4 0 28]),
     (22259, [Entry 1 True, REDUCE sym_fb_decl 3 0 5]),
     (22261, [Entry 1 False, REDUCE sym_fb_decl 3 0 5]),
     (22263, [Entry 1 True, REDUCE sym_fb_decl 7 0 306]),
     (22265, [Entry 1 False, REDUCE sym_fb_decl 7 0 306]),
     (22267, [Entry 1 True, REDUCE sym_fb_decl 9 0 732]),
     (22269, [Entry 1 False, REDUCE sym_fb_decl 9 0 732]),
     (22271, [Entry 1 True, REDUCE sym_fb_decl 9 0 825]),
     (22273, [Entry 1 False, REDUCE sym_fb_decl 9 0 825]),
     (22275, [Entry 1 True, REDUCE sym_fb_decl 9 0 497]),
     (22277, [Entry 1 False, REDUCE sym_fb_decl 9 0 497]),
     (22279, [Entry 1 True, REDUCE sym_fb_decl 9 0 826]),
     (22281, [Entry 1 False, REDUCE sym_fb_decl 9 0 826]),
     (22283, [Entry 1 True, REDUCE sym_fb_decl 9 0 827]),
     (22285, [Entry 1 False, REDUCE sym_fb_decl 9 0 827]),
     (22287, [Entry 1 True, REDUCE sym_fb_decl 9 0 1161]),
     (22289, [Entry 1 False, REDUCE sym_fb_decl 9 0 1161]),
     (22291, [Entry 1 True, REDUCE sym_fb_decl 9 0 498]),
     (22293, [Entry 1 False, REDUCE sym_fb_decl 9 0 498]),
     (22295, [Entry 1 True, REDUCE sym_fb_decl 9 0 828]),
     (22297, [Entry 1 False, REDUCE sym_fb_decl 9 0 828]),
     (22299, [Entry 1 True, REDUCE sym_fb_decl 9 0 829]),
     (22301, [Entry 1 False, REDUCE sym_fb_decl 9 0 829]),
     (22303, [Entry 1 True, REDUCE sym_fb_decl 7 0 73]),
     (22305, [Entry 1 False, REDUCE sym_fb_decl 7 0 73]),
     (22307, [Entry 1 True, REDUCE sym_fb_decl 7 0 307]),
     (22309, [Entry 1 False, REDUCE sym_fb_decl 7 0 307]),
     (22311, [Entry 1 True, REDUCE sym_fb_decl 9 0 830]),
     (22313, [Entry 1 False, REDUCE sym_fb_decl 9 0 830]),
     (22315, [Entry 1 True, REDUCE sym_fb_decl 9 0 1162]),
     (22317, [Entry 1 False, REDUCE sym_fb_decl 9 0 1162]),
     (22319, [Entry 1 True, REDUCE sym_fb_decl 9 0 154]),
     (22321, [Entry 1 False, REDUCE sym_fb_decl 9 0 154]),
     (22323, [Entry 1 True, REDUCE sym_fb_decl 9 0 831]),
     (22325, [Entry 1 False, REDUCE sym_fb_decl 9 0 831]),
     (22327, [Entry 1 True, REDUCE sym_fb_decl 9 0 1163]),
     (22329, [Entry 1 False, REDUCE sym_fb_decl 9 0 1163]),
     (22331, [Entry 1 True, REDUCE sym_fb_decl 7 0 308]),
     (22333, [Entry 1 False, REDUCE sym_fb_decl 7 0 308]),
     (22335, [Entry 1 True, REDUCE sym_fb_decl 9 0 832]),
     (22337, [Entry 1 False, REDUCE sym_fb_decl 9 0 832]),
     (22339, [Entry 1 True, REDUCE sym_fb_decl 9 0 737]),
     (22341, [Entry 1 False, REDUCE sym_fb_decl 9 0 737]),
     (22343, [Entry 1 True, REDUCE sym_fb_decl 9 0 1164]),
     (22345, [Entry 1 False, REDUCE sym_fb_decl 9 0 1164]),
     (22347, [Entry 1 True, REDUCE sym_fb_decl 9 0 1165]),
     (22349, [Entry 1 False, REDUCE sym_fb_decl 9 0 1165]),
     (22351, [Entry 1 True, REDUCE sym_fb_decl 9 0 833]),
     (22353, [Entry 1 False, REDUCE sym_fb_decl 9 0 833]),
     (22355, [Entry 1 True, REDUCE sym_fb_decl 7 0 309]),
     (22357, [Entry 1 False, REDUCE sym_fb_decl 7 0 309]),
     (22359, [Entry 1 True, REDUCE sym_fb_decl 9 0 499]),
     (22361, [Entry 1 False, REDUCE sym_fb_decl 9 0 499]),
     (22363, [Entry 1 True, REDUCE sym_fb_decl 9 0 834]),
     (22365, [Entry 1 False, REDUCE sym_fb_decl 9 0 834]),
     (22367, [Entry 1 True, REDUCE sym_fb_decl 9 0 835]),
     (22369, [Entry 1 False, REDUCE sym_fb_decl 9 0 835]),
     (22371, [Entry 1 True, REDUCE sym_fb_decl 9 0 836]),
     (22373, [Entry 1 False, REDUCE sym_fb_decl 9 0 836]),
     (22375, [Entry 1 True, REDUCE sym_fb_decl 9 0 502]),
     (22377, [Entry 1 False, REDUCE sym_fb_decl 9 0 502]),
     (22379, [Entry 1 True, REDUCE sym_fb_decl 9 0 837]),
     (22381, [Entry 1 False, REDUCE sym_fb_decl 9 0 837]),
     (22383, [Entry 1 True, REDUCE sym_fb_decl 9 0 838]),
     (22385, [Entry 1 False, REDUCE sym_fb_decl 9 0 838]),
     (22387, [Entry 1 True, REDUCE sym_fb_decl 9 0 739]),
     (22389, [Entry 1 False, REDUCE sym_fb_decl 9 0 739]),
     (22391, [Entry 1 True, REDUCE sym_fb_decl 9 0 503]),
     (22393, [Entry 1 False, REDUCE sym_fb_decl 9 0 503]),
     (22395, [Entry 1 True, REDUCE sym_fb_decl 9 0 839]),
     (22397, [Entry 1 False, REDUCE sym_fb_decl 9 0 839]),
     (22399, [Entry 1 True, REDUCE sym_fb_decl 9 0 840]),
     (22401, [Entry 1 False, REDUCE sym_fb_decl 9 0 840]),
     (22403, [Entry 1 True, REDUCE sym_fb_decl 7 0 168]),
     (22405, [Entry 1 False, REDUCE sym_fb_decl 7 0 168]),
     (22407, [Entry 1 True, REDUCE sym_fb_decl 7 0 310]),
     (22409, [Entry 1 False, REDUCE sym_fb_decl 7 0 310]),
     (22411, [Entry 1 True, REDUCE sym_fb_decl 9 0 841]),
     (22413, [Entry 1 False, REDUCE sym_fb_decl 9 0 841]),
     (22415, [Entry 1 True, REDUCE sym_fb_decl 7 0 311]),
     (22417, [Entry 1 False, REDUCE sym_fb_decl 7 0 311])]"

lemma ts_parse_actions_74_tiled: "tiled_from 22119 ts_parse_actions_74 \<and> after_runs 22119 ts_parse_actions_74 = 22419"
  unfolding ts_parse_actions_74_def by (simp cong: runs_weak)

lemma ts_parse_actions_74_ok: "list_all (\<lambda>(i, es). group_ok es) ts_parse_actions_74"
  unfolding ts_parse_actions_74_def
  by (simp add: group_ok_simps entry_action_ok_simps del: One_nat_def group_ok.simps cong: list_all_weak)

text \<open>Lines 491821 to 491970.\<close>

definition ts_parse_actions_75 :: "(nat \<times> TSParseActionEntry list) list" where
  "ts_parse_actions_75 =
    [(22419, [Entry 1 True, REDUCE sym_fb_decl 9 0 282]),
     (22421, [Entry 1 False, REDUCE sym_fb_decl 9 0 282]),
     (22423, [Entry 1 True, REDUCE sym_fb_decl 9 0 842]),
     (22425, [Entry 1 False, REDUCE sym_fb_decl 9 0 842]),
     (22427, [Entry 1 True, REDUCE sym_fb_decl 9 0 1166]),
     (22429, [Entry 1 False, REDUCE sym_fb_decl 9 0 1166]),
     (22431, [Entry 1 True, REDUCE sym_fb_decl 9 0 1167]),
     (22433, [Entry 1 False, REDUCE sym_fb_decl 9 0 1167]),
     (22435, [Entry 1 True, REDUCE sym_fb_decl 9 0 843]),
     (22437, [Entry 1 False, REDUCE sym_fb_decl 9 0 843]),
     (22439, [Entry 1 True, REDUCE sym_fb_decl 9 0 584]),
     (22441, [Entry 1 False, REDUCE sym_fb_decl 9 0 584]),
     (22443, [Entry 1 True, REDUCE sym_fb_decl 9 0 948]),
     (22445, [Entry 1 False, REDUCE sym_fb_decl 9 0 948]),
     (22447, [Entry 1 True, REDUCE sym_fb_decl 9 0 1168]),
     (22449, [Entry 1 False, REDUCE sym_fb_decl 9 0 1168]),
     (22451, [Entry 1 True, REDUCE sym_fb_decl 9 0 949]),
     (22453, [Entry 1 False, REDUCE sym_fb_decl 9 0 949]),
     (22455, [Entry 1 True, REDUCE sym_class_decl 7 0 382]),
     (22457, [Entry 1 False, REDUCE sym_class_decl 7 0 382]),
     (22459, [Entry 1 True, REDUCE sym_fb_decl 9 0 844]),
     (22461, [Entry 1 False, REDUCE sym_fb_decl 9 0 844]),
     (22463, [Entry 1 True, REDUCE sym_class_decl 7 0 207]),
     (22465, [Entry 1 False, REDUCE sym_class_decl 7 0 207]),
     (22467, [Entry 1 True, REDUCE sym_class_decl 7 0 208]),
     (22469, [Entry 1 False, REDUCE sym_class_decl 7 0 208]),
     (22471, [Entry 1 True, REDUCE sym_fb_decl 7 0 312]),
     (22473, [Entry 1 False, REDUCE sym_fb_decl 7 0 312]),
     (22475, [Entry 1 True, REDUCE sym_fb_decl 9 0 504]),
     (22477, [Entry 1 False, REDUCE sym_fb_decl 9 0 504]),
     (22479, [Entry 1 True, REDUCE sym_fb_decl 9 0 845]),
     (22481, [Entry 1 False, REDUCE sym_fb_decl 9 0 845]),
     (22483, [Entry 1 True, REDUCE sym_fb_decl 9 0 846]),
     (22485, [Entry 1 False, REDUCE sym_fb_decl 9 0 846]),
     (22487, [Entry 1 True, REDUCE sym_fb_decl 7 0 170]),
     (22489, [Entry 1 False, REDUCE sym_fb_decl 7 0 170]),
     (22491, [Entry 1 True, REDUCE sym_fb_decl 7 0 313]),
     (22493, [Entry 1 False, REDUCE sym_fb_decl 7 0 313]),
     (22495, [Entry 1 True, REDUCE sym_fb_decl 7 0 314]),
     (22497, [Entry 1 False, REDUCE sym_fb_decl 7 0 314]),
     (22499, [Entry 1 True, REDUCE sym_interface_decl 7 0 383]),
     (22501, [Entry 1 False, REDUCE sym_interface_decl 7 0 383]),
     (22503, [Entry 1 True, REDUCE sym_fb_decl 7 0 171]),
     (22505, [Entry 1 False, REDUCE sym_fb_decl 7 0 171]),
     (22507, [Entry 1 True, REDUCE sym_fb_decl 9 0 847]),
     (22509, [Entry 1 False, REDUCE sym_fb_decl 9 0 847]),
     (22511, [Entry 1 True, REDUCE sym_fb_decl 9 0 506]),
     (22513, [Entry 1 False, REDUCE sym_fb_decl 9 0 506]),
     (22515, [Entry 1 True, REDUCE sym_fb_decl 9 0 848]),
     (22517, [Entry 1 False, REDUCE sym_fb_decl 9 0 848]),
     (22519, [Entry 1 True, REDUCE sym_fb_decl 9 0 849]),
     (22521, [Entry 1 False, REDUCE sym_fb_decl 9 0 849]),
     (22523, [Entry 1 True, REDUCE sym_fb_decl 7 0 315]),
     (22525, [Entry 1 False, REDUCE sym_fb_decl 7 0 315]),
     (22527, [Entry 1 True, REDUCE sym_fb_decl 9 0 507]),
     (22529, [Entry 1 False, REDUCE sym_fb_decl 9 0 507]),
     (22531, [Entry 1 True, REDUCE sym_fb_decl 9 0 850]),
     (22533, [Entry 1 False, REDUCE sym_fb_decl 9 0 850]),
     (22535, [Entry 1 True, REDUCE sym_fb_decl 9 0 851]),
     (22537, [Entry 1 False, REDUCE sym_fb_decl 9 0 851]),
     (22539, [Entry 1 True, REDUCE sym_fb_decl 7 0 316]),
     (22541, [Entry 1 False, REDUCE sym_fb_decl 7 0 316]),
     (22543, [Entry 1 True, REDUCE sym_fb_decl 7 0 182]),
     (22545, [Entry 1 False, REDUCE sym_fb_decl 7 0 182]),
     (22547, [Entry 1 True, REDUCE sym_fb_decl 9 0 852]),
     (22549, [Entry 1 False, REDUCE sym_fb_decl 9 0 852]),
     (22551, [Entry 1 True, REDUCE sym_fb_decl 7 0 335]),
     (22553, [Entry 1 False, REDUCE sym_fb_decl 7 0 335]),
     (22555, [Entry 1 True, REDUCE sym_fb_decl 7 0 317]),
     (22557, [Entry 1 False, REDUCE sym_fb_decl 7 0 317]),
     (22559, [Entry 1 True, REDUCE sym_fb_decl 9 0 283]),
     (22561, [Entry 1 False, REDUCE sym_fb_decl 9 0 283]),
     (22563, [Entry 1 True, REDUCE sym_fb_decl 9 0 853]),
     (22565, [Entry 1 False, REDUCE sym_fb_decl 9 0 853]),
     (22567, [Entry 1 True, REDUCE sym_fb_decl 4 0 5]),
     (22569, [Entry 1 False, REDUCE sym_fb_decl 4 0 5]),
     (22571, [Entry 1 True, REDUCE sym_fb_decl 9 0 1169]),
     (22573, [Entry 1 False, REDUCE sym_fb_decl 9 0 1169]),
     (22575, [Entry 1 True, REDUCE sym_fb_decl 9 0 854]),
     (22577, [Entry 1 False, REDUCE sym_fb_decl 9 0 854]),
     (22579, [Entry 1 True, REDUCE sym_fb_decl 7 0 74]),
     (22581, [Entry 1 False, REDUCE sym_fb_decl 7 0 74]),
     (22583, [Entry 1 True, REDUCE sym_fb_decl 7 0 318]),
     (22585, [Entry 1 False, REDUCE sym_fb_decl 7 0 318]),
     (22587, [Entry 1 True, REDUCE sym_interface_decl 7 0 205]),
     (22589, [Entry 1 False, REDUCE sym_interface_decl 7 0 205]),
     (22591, [Entry 1 True, REDUCE sym_fb_decl 9 0 1170]),
     (22593, [Entry 1 False, REDUCE sym_fb_decl 9 0 1170]),
     (22595, [Entry 1 True, REDUCE sym_fb_decl 7 0 319]),
     (22597, [Entry 1 False, REDUCE sym_fb_decl 7 0 319]),
     (22599, [Entry 1 True, REDUCE sym_fb_decl 9 0 742]),
     (22601, [Entry 1 False, REDUCE sym_fb_decl 9 0 742]),
     (22603, [Entry 1 True, REDUCE sym_fb_decl 9 0 1171]),
     (22605, [Entry 1 False, REDUCE sym_fb_decl 9 0 1171]),
     (22607, [Entry 1 True, REDUCE sym_fb_decl 9 0 855]),
     (22609, [Entry 1 False, REDUCE sym_fb_decl 9 0 855]),
     (22611, [Entry 1 True, REDUCE sym_fb_decl 9 0 1172]),
     (22613, [Entry 1 False, REDUCE sym_fb_decl 9 0 1172]),
     (22615, [Entry 1 True, REDUCE sym_fb_decl 9 0 508]),
     (22617, [Entry 1 False, REDUCE sym_fb_decl 9 0 508]),
     (22619, [Entry 1 True, REDUCE sym_fb_decl 9 0 856]),
     (22621, [Entry 1 False, REDUCE sym_fb_decl 9 0 856]),
     (22623, [Entry 1 True, REDUCE sym_fb_decl 9 0 857]),
     (22625, [Entry 1 False, REDUCE sym_fb_decl 9 0 857]),
     (22627, [Entry 1 True, REDUCE sym_fb_decl 9 0 858]),
     (22629, [Entry 1 False, REDUCE sym_fb_decl 9 0 858]),
     (22631, [Entry 1 True, REDUCE sym_fb_decl 9 0 513]),
     (22633, [Entry 1 False, REDUCE sym_fb_decl 9 0 513]),
     (22635, [Entry 1 True, REDUCE sym_fb_decl 9 0 859]),
     (22637, [Entry 1 False, REDUCE sym_fb_decl 9 0 859]),
     (22639, [Entry 1 True, REDUCE sym_fb_decl 9 0 860]),
     (22641, [Entry 1 False, REDUCE sym_fb_decl 9 0 860]),
     (22643, [Entry 1 True, REDUCE sym_fb_decl 9 0 515]),
     (22645, [Entry 1 False, REDUCE sym_fb_decl 9 0 515]),
     (22647, [Entry 1 True, REDUCE sym_fb_decl 9 0 861]),
     (22649, [Entry 1 False, REDUCE sym_fb_decl 9 0 861]),
     (22651, [Entry 1 True, REDUCE sym_fb_decl 9 0 862]),
     (22653, [Entry 1 False, REDUCE sym_fb_decl 9 0 862]),
     (22655, [Entry 1 True, REDUCE sym_fb_decl 9 0 744]),
     (22657, [Entry 1 False, REDUCE sym_fb_decl 9 0 744]),
     (22659, [Entry 1 True, REDUCE sym_fb_decl 4 0 23]),
     (22661, [Entry 1 False, REDUCE sym_fb_decl 4 0 23]),
     (22663, [Entry 1 True, REDUCE sym_fb_decl 9 0 863]),
     (22665, [Entry 1 False, REDUCE sym_fb_decl 9 0 863]),
     (22667, [Entry 1 True, REDUCE sym_fb_decl 4 0 26]),
     (22669, [Entry 1 False, REDUCE sym_fb_decl 4 0 26]),
     (22671, [Entry 1 True, REDUCE sym_fb_decl 9 0 1173]),
     (22673, [Entry 1 False, REDUCE sym_fb_decl 9 0 1173]),
     (22675, [Entry 1 True, REDUCE sym_fb_decl 7 0 320]),
     (22677, [Entry 1 False, REDUCE sym_fb_decl 7 0 320]),
     (22679, [Entry 1 True, REDUCE sym_fb_decl 9 0 1174]),
     (22681, [Entry 1 False, REDUCE sym_fb_decl 9 0 1174]),
     (22683, [Entry 1 True, REDUCE sym_fb_decl 7 0 172]),
     (22685, [Entry 1 False, REDUCE sym_fb_decl 7 0 172]),
     (22687, [Entry 1 True, REDUCE sym_fb_decl 7 0 321]),
     (22689, [Entry 1 False, REDUCE sym_fb_decl 7 0 321]),
     (22691, [Entry 1 True, REDUCE sym_interface_decl 7 0 386]),
     (22693, [Entry 1 False, REDUCE sym_interface_decl 7 0 386]),
     (22695, [Entry 1 True, REDUCE sym_fb_decl 9 0 864]),
     (22697, [Entry 1 False, REDUCE sym_fb_decl 9 0 864]),
     (22699, [Entry 1 True, REDUCE sym_fb_decl 9 0 745]),
     (22701, [Entry 1 False, REDUCE sym_fb_decl 9 0 745]),
     (22703, [Entry 1 True, REDUCE sym_fb_decl 9 0 865]),
     (22705, [Entry 1 False, REDUCE sym_fb_decl 9 0 865]),
     (22707, [Entry 1 True, REDUCE sym_fb_decl 9 0 518]),
     (22709, [Entry 1 False, REDUCE sym_fb_decl 9 0 518]),
     (22711, [Entry 1 True, REDUCE sym_fb_decl 9 0 866]),
     (22713, [Entry 1 False, REDUCE sym_fb_decl 9 0 866]),
     (22715, [Entry 1 True, REDUCE sym_fb_decl 9 0 867]),
     (22717, [Entry 1 False, REDUCE sym_fb_decl 9 0 867])]"

lemma ts_parse_actions_75_tiled: "tiled_from 22419 ts_parse_actions_75 \<and> after_runs 22419 ts_parse_actions_75 = 22719"
  unfolding ts_parse_actions_75_def by (simp cong: runs_weak)

lemma ts_parse_actions_75_ok: "list_all (\<lambda>(i, es). group_ok es) ts_parse_actions_75"
  unfolding ts_parse_actions_75_def
  by (simp add: group_ok_simps entry_action_ok_simps del: One_nat_def group_ok.simps cong: list_all_weak)

end
