(* ===== verification/Action_Table_4.thy ===== *)
theory Action_Table_4
  imports Reduce_Counts
begin

text \<open>
  The groups of \<open>ts_parse_actions\<close> in \<open>src/crates/tree-sitter/src/parser.c\<close> from index 22719 to 29653, each
  with the check that it is one.
\<close>

text \<open>Lines 491971 to 492120.\<close>

definition ts_parse_actions_76 :: "(nat \<times> TSParseActionEntry list) list" where
  "ts_parse_actions_76 =
    [(22719, [Entry 1 True, REDUCE sym_fb_decl 9 0 520]),
     (22721, [Entry 1 False, REDUCE sym_fb_decl 9 0 520]),
     (22723, [Entry 1 True, REDUCE sym_fb_decl 9 0 868]),
     (22725, [Entry 1 False, REDUCE sym_fb_decl 9 0 868]),
     (22727, [Entry 1 True, REDUCE sym_fb_decl 9 0 869]),
     (22729, [Entry 1 False, REDUCE sym_fb_decl 9 0 869]),
     (22731, [Entry 1 True, REDUCE sym_fb_decl 9 0 1175]),
     (22733, [Entry 1 False, REDUCE sym_fb_decl 9 0 1175]),
     (22735, [Entry 1 True, REDUCE sym_fb_decl 9 0 1176]),
     (22737, [Entry 1 False, REDUCE sym_fb_decl 9 0 1176]),
     (22739, [Entry 1 True, REDUCE sym_fb_decl 9 0 746]),
     (22741, [Entry 1 False, REDUCE sym_fb_decl 9 0 746]),
     (22743, [Entry 1 True, REDUCE sym_fb_decl 9 0 1177]),
     (22745, [Entry 1 False, REDUCE sym_fb_decl 9 0 1177]),
     (22747, [Entry 1 True, REDUCE sym_fb_decl 9 0 521]),
     (22749, [Entry 1 False, REDUCE sym_fb_decl 9 0 521]),
     (22751, [Entry 1 True, REDUCE sym_fb_decl 9 0 870]),
     (22753, [Entry 1 False, REDUCE sym_fb_decl 9 0 870]),
     (22755, [Entry 1 True, REDUCE sym_fb_decl 9 0 1178]),
     (22757, [Entry 1 False, REDUCE sym_fb_decl 9 0 1178]),
     (22759, [Entry 1 True, REDUCE sym_fb_decl 9 0 871]),
     (22761, [Entry 1 False, REDUCE sym_fb_decl 9 0 871]),
     (22763, [Entry 1 True, REDUCE sym_fb_decl 9 0 522]),
     (22765, [Entry 1 False, REDUCE sym_fb_decl 9 0 522]),
     (22767, [Entry 1 True, REDUCE sym_fb_decl 9 0 747]),
     (22769, [Entry 1 False, REDUCE sym_fb_decl 9 0 747]),
     (22771, [Entry 1 True, REDUCE sym_fb_decl 9 0 1179]),
     (22773, [Entry 1 False, REDUCE sym_fb_decl 9 0 1179]),
     (22775, [Entry 1 True, REDUCE sym_fb_decl 9 0 872]),
     (22777, [Entry 1 False, REDUCE sym_fb_decl 9 0 872]),
     (22779, [Entry 1 True, REDUCE sym_fb_decl 9 0 1180]),
     (22781, [Entry 1 False, REDUCE sym_fb_decl 9 0 1180]),
     (22783, [Entry 1 True, REDUCE sym_fb_decl 7 0 336]),
     (22785, [Entry 1 False, REDUCE sym_fb_decl 7 0 336]),
     (22787, [Entry 1 True, REDUCE sym_fb_decl 6 0 70]),
     (22789, [Entry 1 False, REDUCE sym_fb_decl 6 0 70]),
     (22791, [Entry 1 True, REDUCE sym_fb_decl 9 0 1181]),
     (22793, [Entry 1 False, REDUCE sym_fb_decl 9 0 1181]),
     (22795, [Entry 1 True, REDUCE sym_fb_decl 6 0 159]),
     (22797, [Entry 1 False, REDUCE sym_fb_decl 6 0 159]),
     (22799, [Entry 1 True, REDUCE sym_fb_decl 9 0 748]),
     (22801, [Entry 1 False, REDUCE sym_fb_decl 9 0 748]),
     (22803, [Entry 1 True, REDUCE sym_fb_decl 9 0 1182]),
     (22805, [Entry 1 False, REDUCE sym_fb_decl 9 0 1182]),
     (22807, [Entry 1 True, REDUCE sym_fb_decl 9 0 1183]),
     (22809, [Entry 1 False, REDUCE sym_fb_decl 9 0 1183]),
     (22811, [Entry 1 True, REDUCE sym_fb_decl 9 0 1184]),
     (22813, [Entry 1 False, REDUCE sym_fb_decl 9 0 1184]),
     (22815, [Entry 1 True, REDUCE sym_func_decl 7 0 390]),
     (22817, [Entry 1 False, REDUCE sym_func_decl 7 0 390]),
     (22819, [Entry 1 True, REDUCE sym_func_decl 6 0 148]),
     (22821, [Entry 1 False, REDUCE sym_func_decl 6 0 148]),
     (22823, [Entry 1 True, REDUCE sym_func_decl 7 0 391]),
     (22825, [Entry 1 False, REDUCE sym_func_decl 7 0 391]),
     (22827, [Entry 1 True, REDUCE sym_fb_decl 9 0 873]),
     (22829, [Entry 1 False, REDUCE sym_fb_decl 9 0 873]),
     (22831, [Entry 1 True, REDUCE sym_fb_decl 6 0 160]),
     (22833, [Entry 1 False, REDUCE sym_fb_decl 6 0 160]),
     (22835, [Entry 1 True, REDUCE sym_func_decl 7 0 392]),
     (22837, [Entry 1 False, REDUCE sym_func_decl 7 0 392]),
     (22839, [Entry 1 True, REDUCE sym_func_decl 7 0 393]),
     (22841, [Entry 1 False, REDUCE sym_func_decl 7 0 393]),
     (22843, [Entry 1 True, REDUCE sym_func_decl 7 0 394]),
     (22845, [Entry 1 False, REDUCE sym_func_decl 7 0 394]),
     (22847, [Entry 1 True, REDUCE sym_fb_decl 5 0 70]),
     (22849, [Entry 1 False, REDUCE sym_fb_decl 5 0 70]),
     (22851, [Entry 1 True, REDUCE sym_fb_decl 6 0 71]),
     (22853, [Entry 1 False, REDUCE sym_fb_decl 6 0 71]),
     (22855, [Entry 1 True, REDUCE sym_func_decl 7 0 395]),
     (22857, [Entry 1 False, REDUCE sym_func_decl 7 0 395]),
     (22859, [Entry 1 True, REDUCE sym_func_decl 7 0 396]),
     (22861, [Entry 1 False, REDUCE sym_func_decl 7 0 396]),
     (22863, [Entry 1 True, REDUCE sym_func_decl 7 0 397]),
     (22865, [Entry 1 False, REDUCE sym_func_decl 7 0 397]),
     (22867, [Entry 1 True, REDUCE sym_fb_decl 7 0 398]),
     (22869, [Entry 1 False, REDUCE sym_fb_decl 7 0 398]),
     (22871, [Entry 1 True, REDUCE sym_fb_decl 6 0 161]),
     (22873, [Entry 1 False, REDUCE sym_fb_decl 6 0 161]),
     (22875, [Entry 1 True, REDUCE sym_func_decl 6 0 149]),
     (22877, [Entry 1 False, REDUCE sym_func_decl 6 0 149]),
     (22879, [Entry 1 True, REDUCE sym_fb_decl 6 0 162]),
     (22881, [Entry 1 False, REDUCE sym_fb_decl 6 0 162]),
     (22883, [Entry 1 True, REDUCE sym_interface_decl 3 0 5]),
     (22885, [Entry 1 False, REDUCE sym_interface_decl 3 0 5]),
     (22887, [Entry 1 True, REDUCE sym_prog_decl 3 0 5]),
     (22889, [Entry 1 False, REDUCE sym_prog_decl 3 0 5]),
     (22891, [Entry 1 True, REDUCE sym_fb_decl 6 0 163]),
     (22893, [Entry 1 False, REDUCE sym_fb_decl 6 0 163]),
     (22895, [Entry 1 True, REDUCE sym_fb_decl 7 0 399]),
     (22897, [Entry 1 False, REDUCE sym_fb_decl 7 0 399]),
     (22899, [Entry 1 True, REDUCE sym_fb_decl 9 0 523]),
     (22901, [Entry 1 False, REDUCE sym_fb_decl 9 0 523]),
     (22903, [Entry 1 True, REDUCE sym_fb_decl 9 0 874]),
     (22905, [Entry 1 False, REDUCE sym_fb_decl 9 0 874]),
     (22907, [Entry 1 True, REDUCE sym_fb_decl 5 0 71]),
     (22909, [Entry 1 False, REDUCE sym_fb_decl 5 0 71]),
     (22911, [Entry 1 True, REDUCE sym_fb_decl 9 0 875]),
     (22913, [Entry 1 False, REDUCE sym_fb_decl 9 0 875]),
     (22915, [Entry 1 True, REDUCE sym_fb_decl 6 0 72]),
     (22917, [Entry 1 False, REDUCE sym_fb_decl 6 0 72]),
     (22919, [Entry 1 True, REDUCE sym_fb_decl 12 0 2283]),
     (22921, [Entry 1 False, REDUCE sym_fb_decl 12 0 2283]), (22923, [Entry 1 True, SHIFT 7228]),
     (22925, [Entry 1 True, SHIFT 7229]), (22927, [Entry 1 True, SHIFT 7210]),
     (22929, [Entry 1 True, REDUCE sym_prog_config 7 0 1043]),
     (22931, [Entry 1 False, REDUCE sym_prog_config 7 0 1043]), (22933, [Entry 1 True, SHIFT 7488]),
     (22935, [Entry 1 True, REDUCE sym_prog_config 6 0 665]),
     (22937, [Entry 1 False, REDUCE sym_prog_config 6 0 665]), (22939, [Entry 1 True, SHIFT 7222]),
     (22941, [Entry 1 True, SHIFT 7223]), (22943, [Entry 1 True, SHIFT 7224]),
     (22945, [Entry 1 True, REDUCE sym_prog_config 5 0 387]),
     (22947, [Entry 1 False, REDUCE sym_prog_config 5 0 387]), (22949, [Entry 1 True, SHIFT 7230]),
     (22951, [Entry 1 True, SHIFT 7231]), (22953, [Entry 1 True, REDUCE sym_prog_config 4 0 212]),
     (22955, [Entry 1 False, REDUCE sym_prog_config 4 0 212]), (22957, [Entry 1 True, SHIFT 7225]),
     (22959, [Entry 1 True, SHIFT 7226]), (22961, [Entry 1 True, SHIFT 7227]),
     (22963, [Entry 1 True, SHIFT 7552]), (22965, [Entry 1 True, SHIFT 7554]),
     (22967, [Entry 1 True, SHIFT 7400]), (22969, [Entry 1 False, SHIFT 3069]),
     (22971, [Entry 1 False, REDUCE sym__class_variables 1 0 0]),
     (22973, [Entry 1 True, REDUCE sym__class_variables 1 0 0]),
     (22975, [Entry 1 False, SHIFT 3076]),
     (22977, [Entry 2 False, REDUCE aux_sym_config_init_repeat1 2 0 0, SHIFT_REPEAT 2393]),
     (22980, [Entry 2 False, REDUCE aux_sym_config_init_repeat1 2 0 0, SHIFT_REPEAT 2387]),
     (22983, [Entry 2 False, REDUCE aux_sym_config_init_repeat1 2 0 0, SHIFT_REPEAT 2380]),
     (22986, [Entry 1 False, REDUCE aux_sym_config_init_repeat1 2 0 0]),
     (22988, [Entry 1 False, REDUCE sym_ERR_program_not_allowed_in_namespace 1 0 0]),
     (22990, [Entry 1 True, REDUCE sym_ERR_program_not_allowed_in_namespace 1 0 0]),
     (22992, [Entry 1 False, REDUCE sym_ERR_config_not_allowed_in_namespace 1 0 0]),
     (22994, [Entry 1 True, REDUCE sym_ERR_config_not_allowed_in_namespace 1 0 0]),
     (22996, [Entry 1 False, SHIFT 3362]), (22998, [Entry 1 False, SHIFT 3367]),
     (23000, [Entry 1 True, SHIFT 7412]),
     (23002, [Entry 1 True, REDUCE sym_single_resource_decl 1 0 0]),
     (23004, [Entry 1 False, REDUCE sym_single_resource_decl 1 0 0]),
     (23006, [Entry 1 True, REDUCE sym_task_init 11 0 2726]),
     (23008, [Entry 1 False, REDUCE sym_task_init 11 0 2726]),
     (23010, [Entry 1 True, REDUCE sym_task_init 12 0 2726]),
     (23012, [Entry 1 False, REDUCE sym_task_init 12 0 2726]),
     (23014, [Entry 1 True, REDUCE sym_task_init 13 0 2852]),
     (23016, [Entry 1 False, REDUCE sym_task_init 13 0 2852]),
     (23018, [Entry 1 True, REDUCE sym_task_init 14 0 2852]),
     (23020, [Entry 1 False, REDUCE sym_task_init 14 0 2852])]"

lemma ts_parse_actions_76_tiled: "tiled_from 22719 ts_parse_actions_76 \<and> after_runs 22719 ts_parse_actions_76 = 23022"
  unfolding ts_parse_actions_76_def by (simp cong: runs_weak)

lemma ts_parse_actions_76_ok: "list_all (\<lambda>(i, es). group_ok es) ts_parse_actions_76"
  unfolding ts_parse_actions_76_def
  by (simp add: group_ok_simps entry_action_ok_simps del: One_nat_def group_ok.simps cong: list_all_weak)

text \<open>Lines 492121 to 492270.\<close>

definition ts_parse_actions_77 :: "(nat \<times> TSParseActionEntry list) list" where
  "ts_parse_actions_77 =
    [(23022, [Entry 1 True, REDUCE sym_task_init 14 0 2854]),
     (23024, [Entry 1 False, REDUCE sym_task_init 14 0 2854]),
     (23026, [Entry 1 True, REDUCE sym_task_init 15 0 2852]),
     (23028, [Entry 1 False, REDUCE sym_task_init 15 0 2852]),
     (23030, [Entry 1 True, REDUCE sym_task_init 15 0 2854]),
     (23032, [Entry 1 False, REDUCE sym_task_init 15 0 2854]),
     (23034, [Entry 1 True, REDUCE sym_task_init 16 0 2854]),
     (23036, [Entry 1 False, REDUCE sym_task_init 16 0 2854]),
     (23038, [Entry 1 True, REDUCE sym_prog_config 5 0 388]),
     (23040, [Entry 1 False, REDUCE sym_prog_config 5 0 388]),
     (23042, [Entry 1 True, REDUCE sym_prog_config 6 0 664]),
     (23044, [Entry 1 False, REDUCE sym_prog_config 6 0 664]),
     (23046, [Entry 1 True, REDUCE sym_prog_conf_elems 3 0 0]),
     (23048, [Entry 1 False, REDUCE sym_prog_conf_elems 3 0 0]),
     (23050, [Entry 1 True, REDUCE sym_task_init 2 0 0]),
     (23052, [Entry 1 False, REDUCE sym_task_init 2 0 0]),
     (23054, [Entry 1 True, REDUCE sym_prog_config 7 0 1044]),
     (23056, [Entry 1 False, REDUCE sym_prog_config 7 0 1044]),
     (23058, [Entry 1 True, REDUCE sym_task_init 11 0 2556]),
     (23060, [Entry 1 False, REDUCE sym_task_init 11 0 2556]),
     (23062, [Entry 1 True, REDUCE sym_task_init 5 0 1048]),
     (23064, [Entry 1 False, REDUCE sym_task_init 5 0 1048]),
     (23066, [Entry 1 True, REDUCE sym_task_init 5 0 1049]),
     (23068, [Entry 1 False, REDUCE sym_task_init 5 0 1049]),
     (23070, [Entry 1 True, REDUCE sym_task_init 11 0 2555]),
     (23072, [Entry 1 False, REDUCE sym_task_init 11 0 2555]), (23074, [Entry 1 False, SHIFT 7994]),
     (23076, [Entry 1 True, SHIFT 7992]), (23078, [Entry 1 False, SHIFT 8151]),
     (23080, [Entry 1 False, SHIFT 9416]), (23082, [Entry 1 True, REDUCE sym_task_config 3 0 91]),
     (23084, [Entry 1 False, REDUCE sym_task_config 3 0 91]),
     (23086, [Entry 1 True, REDUCE sym_prog_config 8 0 1480]),
     (23088, [Entry 1 False, REDUCE sym_prog_config 8 0 1480]),
     (23090, [Entry 1 True, REDUCE sym_prog_conf_elems 4 0 0]),
     (23092, [Entry 1 False, REDUCE sym_prog_conf_elems 4 0 0]),
     (23094, [Entry 1 True, REDUCE sym_task_init 6 0 1048]),
     (23096, [Entry 1 False, REDUCE sym_task_init 6 0 1048]),
     (23098, [Entry 1 True, REDUCE sym_task_init 6 0 1049]),
     (23100, [Entry 1 False, REDUCE sym_task_init 6 0 1049]),
     (23102, [Entry 1 False, REDUCE sym_ERR_config_entry_with_no_spec 1 0 18]),
     (23104, [Entry 1 True, SHIFT 2642]),
     (23106, [Entry 1 True, REDUCE sym_ERR_config_entry_with_no_spec 1 0 18]),
     (23108, [Entry 1 True, SHIFT 7656]), (23110, [Entry 1 True, REDUCE sym_task_init 9 0 2554]),
     (23112, [Entry 1 False, REDUCE sym_task_init 9 0 2554]),
     (23114, [Entry 1 True, REDUCE sym_task_init 9 0 2555]),
     (23116, [Entry 1 False, REDUCE sym_task_init 9 0 2555]),
     (23118, [Entry 1 True, REDUCE sym_task_init 9 0 2556]),
     (23120, [Entry 1 False, REDUCE sym_task_init 9 0 2556]),
     (23122, [Entry 1 True, REDUCE sym_prog_conf_elems 2 0 0]),
     (23124, [Entry 1 False, REDUCE sym_prog_conf_elems 2 0 0]),
     (23126, [Entry 2 True, REDUCE aux_sym_relative_offset_repeat1 2 0 0, SHIFT_REPEAT 9003]),
     (23129, [Entry 1 True, SHIFT 9003]), (23131, [Entry 1 True, REDUCE sym_task_init 10 0 2554]),
     (23133, [Entry 1 False, REDUCE sym_task_init 10 0 2554]),
     (23135, [Entry 1 True, REDUCE sym_task_init 10 0 2555]),
     (23137, [Entry 1 False, REDUCE sym_task_init 10 0 2555]),
     (23139, [Entry 1 True, REDUCE sym_task_init 10 0 2556]),
     (23141, [Entry 1 False, REDUCE sym_task_init 10 0 2556]),
     (23143, [Entry 1 True, REDUCE sym_task_init 10 0 2726]),
     (23145, [Entry 1 False, REDUCE sym_task_init 10 0 2726]),
     (23147, [Entry 1 True, REDUCE sym_task_init 7 0 1049]),
     (23149, [Entry 1 False, REDUCE sym_task_init 7 0 1049]),
     (23151, [Entry 1 True, REDUCE sym_task_init 5 0 1047]),
     (23153, [Entry 1 False, REDUCE sym_task_init 5 0 1047]), (23155, [Entry 1 True, SHIFT 7422]),
     (23157, [Entry 1 True, REDUCE sym_access_decls 2 0 0]),
     (23159, [Entry 1 False, REDUCE sym_access_decls 2 0 0]),
     (23161, [Entry 1 True, REDUCE sym_single_resource_decl 2 0 0]),
     (23163, [Entry 1 False, REDUCE sym_single_resource_decl 2 0 0]),
     (23165, [Entry 1 True, SHIFT 7434]), (23167, [Entry 1 True, REDUCE sym_access_decls 3 0 0]),
     (23169, [Entry 1 False, REDUCE sym_access_decls 3 0 0]),
     (23171, [Entry 1 False, REDUCE sym_array_type_spec 6 0 755]),
     (23173, [Entry 1 True, REDUCE sym_array_type_spec 6 0 755]),
     (23175, [Entry 1 True, REDUCE aux_sym_config_decl_repeat1 1 0 9]),
     (23177, [Entry 1 False, REDUCE aux_sym_config_decl_repeat1 1 0 9]),
     (23179, [Entry 1 True, REDUCE aux_sym_SFC_network_repeat1 2 0 0]),
     (23181, [Entry 2 True, REDUCE aux_sym_SFC_network_repeat1 2 0 0, SHIFT_REPEAT 8144]),
     (23184, [Entry 2 True, REDUCE aux_sym_SFC_network_repeat1 2 0 0, SHIFT_REPEAT 7981]),
     (23187, [Entry 2 True, REDUCE aux_sym_SFC_network_repeat1 2 0 0, SHIFT_REPEAT 8134]),
     (23190, [Entry 1 True, REDUCE aux_sym_config_decl_repeat1 1 0 12]),
     (23192, [Entry 1 False, REDUCE aux_sym_config_decl_repeat1 1 0 12]),
     (23194, [Entry 1 True, REDUCE sym_ERR_var_not_allowed 1 0 0]),
     (23196, [Entry 1 False, REDUCE sym_ERR_var_not_allowed 1 0 0]),
     (23198, [Entry 1 False, REDUCE sym_struct_type_spec 5 0 236]),
     (23200, [Entry 1 True, REDUCE sym_struct_type_spec 5 0 236]),
     (23202, [Entry 1 True, REDUCE sym_ERR_var_external_not_allowed 1 0 0]),
     (23204, [Entry 1 False, REDUCE sym_ERR_var_external_not_allowed 1 0 0]),
     (23206, [Entry 1 True, REDUCE sym_resource_decl 6 0 668]),
     (23208, [Entry 1 False, REDUCE sym_resource_decl 6 0 668]),
     (23210, [Entry 1 True, REDUCE sym_resource_decl 5 0 389]),
     (23212, [Entry 1 False, REDUCE sym_resource_decl 5 0 389]),
     (23214, [Entry 1 True, REDUCE sym__config_variables 1 0 0]),
     (23216, [Entry 1 False, REDUCE sym__config_variables 1 0 0]),
     (23218, [Entry 1 False, REDUCE sym_struct_type_spec 4 0 236]),
     (23220, [Entry 1 True, REDUCE sym_struct_type_spec 4 0 236]),
     (23222, [Entry 1 False, REDUCE sym_struct_type_spec 4 0 0]),
     (23224, [Entry 1 True, REDUCE sym_struct_type_spec 4 0 0]),
     (23226, [Entry 1 False, REDUCE sym_struct_type_spec 4 0 102]),
     (23228, [Entry 1 True, REDUCE sym_struct_type_spec 4 0 102]),
     (23230, [Entry 1 False, REDUCE sym_subrange_type_spec 4 0 238]),
     (23232, [Entry 1 True, REDUCE sym_subrange_type_spec 4 0 238]),
     (23234, [Entry 1 False, REDUCE sym_struct_type_spec 2 0 0]),
     (23236, [Entry 1 True, REDUCE sym_struct_type_spec 2 0 0]),
     (23238, [Entry 1 True, REDUCE sym_resource_decl 6 0 669]),
     (23240, [Entry 1 False, REDUCE sym_resource_decl 6 0 669]),
     (23242, [Entry 1 True, REDUCE sym_access_decls 4 0 0]),
     (23244, [Entry 1 False, REDUCE sym_access_decls 4 0 0]),
     (23246, [Entry 1 True, REDUCE sym_SFC_network 2 0 0]), (23248, [Entry 1 True, SHIFT 8144]),
     (23250, [Entry 1 True, SHIFT 7981]), (23252, [Entry 1 True, SHIFT 8134]),
     (23254, [Entry 1 True, REDUCE aux_sym_config_decl_repeat1 1 0 10]),
     (23256, [Entry 1 False, REDUCE aux_sym_config_decl_repeat1 1 0 10]),
     (23258, [Entry 1 False, REDUCE sym_simple_type_spec 1 0 0]),
     (23260, [Entry 1 True, REDUCE sym_simple_type_spec 1 0 0]),
     (23262, [Entry 1 False, REDUCE sym_ref_type_spec 2 0 42]),
     (23264, [Entry 1 True, REDUCE sym_ref_type_spec 2 0 42]),
     (23266, [Entry 1 True, REDUCE sym_SFC_network 1 0 0]),
     (23268, [Entry 1 False, REDUCE sym_struct_type_spec 3 0 0]),
     (23270, [Entry 1 True, REDUCE sym_struct_type_spec 3 0 0]),
     (23272, [Entry 1 False, REDUCE sym_struct_type_spec 3 0 102]),
     (23274, [Entry 1 True, REDUCE sym_struct_type_spec 3 0 102]),
     (23276, [Entry 1 True, REDUCE sym_ERR_task_or_program_outside_resource 1 0 0]),
     (23278, [Entry 1 False, REDUCE sym_ERR_task_or_program_outside_resource 1 0 0]),
     (23280, [Entry 1 False, REDUCE sym_ERR_doubled_constant 2 0 47]),
     (23282, [Entry 1 False, SHIFT 7448]),
     (23284, [Entry 1 True, REDUCE aux_sym_config_decl_repeat1 1 0 11]),
     (23286, [Entry 1 False, REDUCE aux_sym_config_decl_repeat1 1 0 11]),
     (23288, [Entry 1 False, REDUCE sym_ERR_doubled_retain 2 0 47]),
     (23290, [Entry 1 True, REDUCE sym_resource_decl 7 0 1046]),
     (23292, [Entry 1 False, REDUCE sym_resource_decl 7 0 1046]),
     (23294, [Entry 1 False, REDUCE sym_ERR_doubled_non_retain 2 0 47]),
     (23296, [Entry 1 False, REDUCE aux_sym_ERR_doubled_retain_repeat1 2 0 0]),
     (23298, [Entry 2 False, REDUCE aux_sym_ERR_doubled_retain_repeat1 2 0 0, SHIFT_REPEAT 7448]),
     (23301, [Entry 1 False, REDUCE sym_simple_type_init 2 0 0]),
     (23303, [Entry 1 True, REDUCE sym_simple_type_init 2 0 0]),
     (23305, [Entry 1 False, SHIFT 2011]), (23307, [Entry 1 False, SHIFT 2000]),
     (23309, [Entry 1 False, SHIFT 2003]), (23311, [Entry 1 True, SHIFT 7720]),
     (23313, [Entry 1 True, SHIFT 7590]), (23315, [Entry 1 True, SHIFT 7180]),
     (23317, [Entry 1 False, REDUCE sym_struct_type_init 3 0 0]),
     (23319, [Entry 1 True, REDUCE sym_struct_type_init 3 0 0]),
     (23321, [Entry 1 False, REDUCE sym_array_type_init 5 0 0]),
     (23323, [Entry 1 True, REDUCE sym_array_type_init 5 0 0]), (23325, [Entry 1 False, SHIFT 2027])]"

lemma ts_parse_actions_77_tiled: "tiled_from 23022 ts_parse_actions_77 \<and> after_runs 23022 ts_parse_actions_77 = 23327"
  unfolding ts_parse_actions_77_def by (simp cong: runs_weak)

lemma ts_parse_actions_77_ok: "list_all (\<lambda>(i, es). group_ok es) ts_parse_actions_77"
  unfolding ts_parse_actions_77_def
  by (simp add: group_ok_simps entry_action_ok_simps del: One_nat_def group_ok.simps cong: list_all_weak)

text \<open>Lines 492271 to 492420.\<close>

definition ts_parse_actions_78 :: "(nat \<times> TSParseActionEntry list) list" where
  "ts_parse_actions_78 =
    [(23327, [Entry 1 False, SHIFT 2023]),
     (23329, [Entry 1 False, REDUCE sym_struct_type_init 4 0 0]),
     (23331, [Entry 1 True, REDUCE sym_struct_type_init 4 0 0]),
     (23333, [Entry 1 False, SHIFT 1128]), (23335, [Entry 1 False, SHIFT 1137]),
     (23337, [Entry 1 False, REDUCE sym_array_type_init 3 0 0]),
     (23339, [Entry 1 True, REDUCE sym_array_type_init 3 0 0]),
     (23341, [Entry 2 False, REDUCE aux_sym_ERR_doubled_qualifier_repeat1 1 0 0, REDUCE aux_sym_ERR_doubled_retain_repeat1 1 0 0]),
     (23344, [Entry 1 False, REDUCE aux_sym_ERR_doubled_retain_repeat1 1 0 0]),
     (23346, [Entry 1 False, REDUCE sym_array_type_init 4 0 0]),
     (23348, [Entry 1 True, REDUCE sym_array_type_init 4 0 0]), (23350, [Entry 1 True, SHIFT 7710]),
     (23352, [Entry 1 True, SHIFT 3544]), (23354, [Entry 1 True, SHIFT 7908]),
     (23356, [Entry 1 True, SHIFT 7426]),
     (23358, [Entry 1 False, REDUCE sym_struct_type_init 5 0 0]),
     (23360, [Entry 1 True, REDUCE sym_struct_type_init 5 0 0]),
     (23362, [Entry 1 False, REDUCE sym_loc_var_spec_init 2 0 110]),
     (23364, [Entry 1 True, SHIFT 29]),
     (23366, [Entry 1 True, REDUCE sym_loc_var_spec_init 2 0 110]),
     (23368, [Entry 1 False, SHIFT 3251]), (23370, [Entry 1 False, SHIFT 3049]),
     (23372, [Entry 1 False, SHIFT 7640]), (23374, [Entry 1 False, SHIFT 7670]),
     (23376, [Entry 1 False, SHIFT 2953]), (23378, [Entry 1 False, SHIFT 7695]),
     (23380, [Entry 1 False, SHIFT 7512]), (23382, [Entry 1 False, SHIFT 3151]),
     (23384, [Entry 1 True, SHIFT 7650]), (23386, [Entry 1 True, SHIFT 10108]),
     (23388, [Entry 1 True, REDUCE sym__method_prot_variables 1 0 0]),
     (23390, [Entry 1 False, SHIFT 3061]), (23392, [Entry 1 False, SHIFT 7547]),
     (23394, [Entry 1 False, SHIFT 3156]),
     (23396, [Entry 1 False, REDUCE sym_struct_elem_decl 4 0 437]),
     (23398, [Entry 1 True, REDUCE sym_struct_elem_decl 4 0 437]),
     (23400, [Entry 1 False, SHIFT 7861]), (23402, [Entry 1 False, SHIFT 7856]),
     (23404, [Entry 1 True, SHIFT 7558]), (23406, [Entry 1 False, SHIFT 7623]),
     (23408, [Entry 1 False, SHIFT 7432]),
     (23410, [Entry 1 False, REDUCE sym_struct_elem_decl 4 0 438]),
     (23412, [Entry 1 True, REDUCE sym_struct_elem_decl 4 0 438]),
     (23414, [Entry 1 False, SHIFT 7778]), (23416, [Entry 1 False, SHIFT 3104]),
     (23418, [Entry 2 False, REDUCE aux_sym_var_decls_repeat1 2 0 0, SHIFT_REPEAT 7559]),
     (23421, [Entry 2 False, REDUCE aux_sym_var_decls_repeat1 2 0 0, SHIFT_REPEAT 8153]),
     (23424, [Entry 1 False, REDUCE aux_sym_var_decls_repeat1 2 0 0]),
     (23426, [Entry 1 False, SHIFT 7484]), (23428, [Entry 1 False, SHIFT 3152]),
     (23430, [Entry 1 False, SHIFT 3041]), (23432, [Entry 1 False, SHIFT 905]),
     (23434, [Entry 1 False, SHIFT 8139]), (23436, [Entry 1 False, SHIFT 10283]),
     (23438, [Entry 1 False, SHIFT 3109]), (23440, [Entry 1 False, REDUCE sym_pou_pragma 1 0 0]),
     (23442, [Entry 1 True, REDUCE sym_pou_pragma 1 0 0]),
     (23444, [Entry 1 False, REDUCE sym_struct_elem_decl 5 0 757]),
     (23446, [Entry 1 True, REDUCE sym_struct_elem_decl 5 0 757]),
     (23448, [Entry 1 False, SHIFT 7487]), (23450, [Entry 1 False, SHIFT 3071]),
     (23452, [Entry 1 False, SHIFT 3132]), (23454, [Entry 1 False, SHIFT 3179]),
     (23456, [Entry 1 False, SHIFT 7550]), (23458, [Entry 1 False, SHIFT 3157]),
     (23460, [Entry 1 False, REDUCE sym_extern_pragma 5 0 39]),
     (23462, [Entry 1 True, REDUCE sym_extern_pragma 5 0 39]), (23464, [Entry 1 False, SHIFT 904]),
     (23466, [Entry 1 False, SHIFT 8166]), (23468, [Entry 1 False, SHIFT 8476]),
     (23470, [Entry 1 False, REDUCE sym_warn_pragma 5 0 40]),
     (23472, [Entry 1 True, REDUCE sym_warn_pragma 5 0 40]), (23474, [Entry 1 False, SHIFT 3133]),
     (23476, [Entry 1 False, REDUCE sym_test_pragma 1 0 0]),
     (23478, [Entry 1 True, REDUCE sym_test_pragma 1 0 0]), (23480, [Entry 1 False, SHIFT 7964]),
     (23482, [Entry 1 True, SHIFT 7965]), (23484, [Entry 1 False, SHIFT 7966]),
     (23486, [Entry 1 False, SHIFT 7509]), (23488, [Entry 1 False, SHIFT 3183]),
     (23490, [Entry 1 False, SHIFT 7510]), (23492, [Entry 1 False, SHIFT 3184]),
     (23494, [Entry 1 False, SHIFT 7511]), (23496, [Entry 1 False, SHIFT 3372]),
     (23498, [Entry 1 False, SHIFT 3048]), (23500, [Entry 1 True, SHIFT 3]),
     (23502, [Entry 1 False, SHIFT 62]), (23504, [Entry 1 False, SHIFT 63]),
     (23506, [Entry 1 True, SHIFT 64]), (23508, [Entry 1 False, SHIFT 3226]),
     (23510, [Entry 1 False, SHIFT 3187]), (23512, [Entry 1 False, SHIFT 3349]),
     (23514, [Entry 1 False, SHIFT 3100]), (23516, [Entry 1 False, SHIFT 3347]),
     (23518, [Entry 1 False, SHIFT 3059]), (23520, [Entry 1 False, SHIFT 3364]),
     (23522, [Entry 1 False, SHIFT 3165]), (23524, [Entry 1 False, SHIFT 3037]),
     (23526, [Entry 1 False, SHIFT 3096]), (23528, [Entry 1 False, SHIFT 3370]),
     (23530, [Entry 1 False, SHIFT 3373]), (23532, [Entry 1 False, SHIFT 3351]),
     (23534, [Entry 1 False, REDUCE sym_must_call_pragma 1 0 0]),
     (23536, [Entry 1 True, REDUCE sym_must_call_pragma 1 0 0]),
     (23538, [Entry 1 False, SHIFT 7203]), (23540, [Entry 1 False, SHIFT 7204]),
     (23542, [Entry 1 False, SHIFT 7190]), (23544, [Entry 1 False, SHIFT 7191]),
     (23546, [Entry 1 False, SHIFT 3365]), (23548, [Entry 1 False, SHIFT 7200]),
     (23550, [Entry 1 False, SHIFT 7201]), (23552, [Entry 1 True, SHIFT 2]),
     (23554, [Entry 1 False, SHIFT 50]), (23556, [Entry 1 False, SHIFT 51]),
     (23558, [Entry 1 True, SHIFT 47]), (23560, [Entry 1 False, REDUCE sym_once_pragma 1 0 0]),
     (23562, [Entry 1 True, REDUCE sym_once_pragma 1 0 0]), (23564, [Entry 1 False, SHIFT 7534]),
     (23566, [Entry 1 False, SHIFT 3199]), (23568, [Entry 1 False, REDUCE sym_export_pragma 1 0 0]),
     (23570, [Entry 1 True, REDUCE sym_export_pragma 1 0 0]), (23572, [Entry 1 False, SHIFT 3205]),
     (23574, [Entry 1 False, SHIFT 3210]), (23576, [Entry 1 False, SHIFT 3211]),
     (23578, [Entry 1 False, SHIFT 3217]),
     (23580, [Entry 1 False, REDUCE sym_struct_elem_decl 3 0 16]),
     (23582, [Entry 1 True, REDUCE sym_struct_elem_decl 3 0 16]),
     (23584, [Entry 1 False, SHIFT 3058]), (23586, [Entry 1 False, SHIFT 3228]),
     (23588, [Entry 1 False, SHIFT 3229]), (23590, [Entry 1 False, SHIFT 3231]),
     (23592, [Entry 1 False, SHIFT 3241]), (23594, [Entry 1 False, SHIFT 3242]),
     (23596, [Entry 1 False, SHIFT 3245]), (23598, [Entry 1 False, SHIFT 3246]),
     (23600, [Entry 1 False, SHIFT 3176]), (23602, [Entry 1 False, SHIFT 3257]),
     (23604, [Entry 1 False, SHIFT 3261]), (23606, [Entry 1 False, SHIFT 3136]),
     (23608, [Entry 1 False, SHIFT 915]), (23610, [Entry 1 False, SHIFT 8176]),
     (23612, [Entry 1 False, SHIFT 10446]), (23614, [Entry 1 False, SHIFT 919]),
     (23616, [Entry 1 False, SHIFT 8186]), (23618, [Entry 1 False, SHIFT 10472]),
     (23620, [Entry 1 False, SHIFT 931]), (23622, [Entry 1 False, SHIFT 8193]),
     (23624, [Entry 1 False, SHIFT 10500]), (23626, [Entry 1 False, SHIFT 935]),
     (23628, [Entry 1 False, SHIFT 8198])]"

lemma ts_parse_actions_78_tiled: "tiled_from 23327 ts_parse_actions_78 \<and> after_runs 23327 ts_parse_actions_78 = 23630"
  unfolding ts_parse_actions_78_def by (simp cong: runs_weak)

lemma ts_parse_actions_78_ok: "list_all (\<lambda>(i, es). group_ok es) ts_parse_actions_78"
  unfolding ts_parse_actions_78_def
  by (simp add: group_ok_simps entry_action_ok_simps del: One_nat_def group_ok.simps cong: list_all_weak)

text \<open>Lines 492421 to 492570.\<close>

definition ts_parse_actions_79 :: "(nat \<times> TSParseActionEntry list) list" where
  "ts_parse_actions_79 =
    [(23630, [Entry 1 False, SHIFT 10511]), (23632, [Entry 1 False, SHIFT 3355]),
     (23634, [Entry 1 True, SHIFT 2289]), (23636, [Entry 1 True, SHIFT 2310]),
     (23638, [Entry 1 True, SHIFT 2314]), (23640, [Entry 1 True, SHIFT 2135]),
     (23642, [Entry 1 True, SHIFT 3123]), (23644, [Entry 1 True, SHIFT 3138]),
     (23646, [Entry 1 False, SHIFT 7584]), (23648, [Entry 1 False, SHIFT 7440]),
     (23650, [Entry 1 False, REDUCE sym_ERR_variable_with_no_spec 1 0 0]),
     (23652, [Entry 1 True, REDUCE sym_variable_list 1 0 0]), (23654, [Entry 1 True, SHIFT 8974]),
     (23656, [Entry 1 True, REDUCE sym_ERR_variable_with_no_spec 1 0 0]),
     (23658, [Entry 1 True, SHIFT 48]), (23660, [Entry 1 False, SHIFT 2537]),
     (23662, [Entry 1 False, SHIFT 2519]), (23664, [Entry 1 True, SHIFT 2541]),
     (23666, [Entry 1 True, SHIFT 3085]), (23668, [Entry 1 True, SHIFT 19]),
     (23670, [Entry 1 False, SHIFT 8205]),
     (23672, [Entry 1 False, REDUCE sym_var_decl_init 2 0 110]),
     (23674, [Entry 1 True, REDUCE sym_var_decl_init 2 0 110]), (23676, [Entry 1 True, SHIFT 2130]),
     (23678, [Entry 1 False, SHIFT 7537]), (23680, [Entry 1 False, SHIFT 3203]),
     (23682, [Entry 1 True, SHIFT 2288]), (23684, [Entry 1 True, SHIFT 3153]),
     (23686, [Entry 1 False, SHIFT 7515]), (23688, [Entry 1 False, SHIFT 3352]),
     (23690, [Entry 1 False, SHIFT 7474]), (23692, [Entry 1 False, SHIFT 2945]),
     (23694, [Entry 1 True, SHIFT 7433]), (23696, [Entry 1 True, REDUCE sym_transition 8 0 0]),
     (23698, [Entry 1 True, SHIFT 2626]), (23700, [Entry 1 True, SHIFT 7833]),
     (23702, [Entry 1 True, SHIFT 4524]), (23704, [Entry 1 False, REDUCE sym_enum_spec 3 0 0]),
     (23706, [Entry 1 True, REDUCE sym_enum_spec 3 0 0]), (23708, [Entry 1 False, SHIFT 8140]),
     (23710, [Entry 1 False, SHIFT 7428]),
     (23712, [Entry 1 False, REDUCE sym_ERR_config_entry_with_no_spec 2 0 18]),
     (23714, [Entry 1 True, REDUCE sym_ERR_config_entry_with_no_spec 2 0 18]),
     (23716, [Entry 1 False, SHIFT 7429]), (23718, [Entry 1 False, SHIFT 7430]),
     (23720, [Entry 2 False, REDUCE aux_sym_struct_type_spec_repeat1 2 0 0, SHIFT_REPEAT 7861]),
     (23723, [Entry 2 False, REDUCE aux_sym_struct_type_spec_repeat1 2 0 0, SHIFT_REPEAT 7856]),
     (23726, [Entry 1 False, REDUCE aux_sym_struct_type_spec_repeat1 2 0 0]),
     (23728, [Entry 1 False, REDUCE sym_enum_spec 3 0 104]),
     (23730, [Entry 1 True, REDUCE sym_enum_spec 3 0 104]), (23732, [Entry 1 False, SHIFT 3291]),
     (23734, [Entry 1 True, SHIFT 4679]), (23736, [Entry 1 True, SHIFT 3546]),
     (23738, [Entry 1 True, REDUCE aux_sym_try_stmt_repeat1 2 0 0]),
     (23740, [Entry 2 True, REDUCE aux_sym_try_stmt_repeat1 2 0 0, SHIFT_REPEAT 2310]),
     (23743, [Entry 2 True, REDUCE aux_sym_try_stmt_repeat1 2 0 0, SHIFT_REPEAT 2314]),
     (23746, [Entry 1 True, SHIFT 7425]), (23748, [Entry 1 True, REDUCE sym_step 4 0 0]),
     (23750, [Entry 1 False, REDUCE sym_enum_spec 5 0 104]),
     (23752, [Entry 1 True, REDUCE sym_enum_spec 5 0 104]),
     (23754, [Entry 1 True, REDUCE aux_sym_SFC_repeat1 2 0 0]),
     (23756, [Entry 2 True, REDUCE aux_sym_SFC_repeat1 2 0 0, SHIFT_REPEAT 8127]),
     (23759, [Entry 1 True, SHIFT 2336]), (23761, [Entry 1 True, SHIFT 7939]),
     (23763, [Entry 1 False, REDUCE sym_var_decl 2 0 110]),
     (23765, [Entry 1 True, REDUCE sym_var_decl 2 0 110]),
     (23767, [Entry 1 True, REDUCE sym_step 5 0 0]),
     (23769, [Entry 1 True, REDUCE sym_action 5 0 0]), (23771, [Entry 1 True, SHIFT 7463]),
     (23773, [Entry 1 True, SHIFT 7731]), (23775, [Entry 1 True, SHIFT 5264]),
     (23777, [Entry 2 True, REDUCE aux_sym_resource_decl_repeat1 2 0 0, SHIFT_REPEAT 7908]),
     (23780, [Entry 1 True, REDUCE aux_sym_resource_decl_repeat1 2 0 0]),
     (23782, [Entry 2 True, REDUCE aux_sym_resource_decl_repeat1 2 0 0, SHIFT_REPEAT 9693]),
     (23785, [Entry 1 True, REDUCE sym_data_source 1 0 0]), (23787, [Entry 1 True, SHIFT 7476]),
     (23789, [Entry 1 True, REDUCE sym_transition 9 0 0]),
     (23791, [Entry 1 False, REDUCE sym_enum_spec 4 0 0]),
     (23793, [Entry 1 True, REDUCE sym_enum_spec 4 0 0]),
     (23795, [Entry 1 True, REDUCE sym_transition 13 0 0]),
     (23797, [Entry 1 False, REDUCE sym_enum_spec 2 0 0]),
     (23799, [Entry 1 True, REDUCE sym_enum_spec 2 0 0]),
     (23801, [Entry 1 True, REDUCE sym_initial_step 4 0 0]),
     (23803, [Entry 1 True, REDUCE sym_SFC 1 0 0]), (23805, [Entry 1 True, SHIFT 8127]),
     (23807, [Entry 1 True, REDUCE sym_initial_step 5 0 0]),
     (23809, [Entry 1 True, REDUCE sym_transition 14 0 0]), (23811, [Entry 1 False, SHIFT 7421]),
     (23813, [Entry 1 True, SHIFT 1222]), (23815, [Entry 1 True, SHIFT 7383]),
     (23817, [Entry 1 True, SHIFT 9643]), (23819, [Entry 1 True, SHIFT 5279]),
     (23821, [Entry 1 False, REDUCE sym_enum_spec 4 0 104]),
     (23823, [Entry 1 True, REDUCE sym_enum_spec 4 0 104]), (23825, [Entry 1 True, SHIFT 2374]),
     (23827, [Entry 1 False, REDUCE sym_type_decl 3 0 16]),
     (23829, [Entry 1 True, REDUCE sym_type_decl 3 0 16]), (23831, [Entry 1 True, SHIFT 7106]),
     (23833, [Entry 1 False, REDUCE sym_enum_type_spec 1 0 0]),
     (23835, [Entry 1 True, REDUCE sym_enum_type_spec 1 0 0]), (23837, [Entry 1 False, SHIFT 7441]),
     (23839, [Entry 1 True, SHIFT 7446]), (23841, [Entry 1 True, SHIFT 9357]),
     (23843, [Entry 1 True, SHIFT 8175]), (23845, [Entry 1 True, SHIFT 9473]),
     (23847, [Entry 1 True, SHIFT 8171]), (23849, [Entry 1 False, SHIFT 3350]),
     (23851, [Entry 1 False, SHIFT 3051]), (23853, [Entry 1 True, REDUCE sym_ladder_diagram 1 0 0]),
     (23855, [Entry 1 True, SHIFT 7683]), (23857, [Entry 1 False, SHIFT 3356]),
     (23859, [Entry 1 False, SHIFT 3106]),
     (23861, [Entry 1 True, REDUCE aux_sym_fb_diagram_repeat1 2 0 0]),
     (23863, [Entry 2 True, REDUCE aux_sym_fb_diagram_repeat1 2 0 0, SHIFT_REPEAT 7632]),
     (23866, [Entry 1 True, REDUCE sym_fb_diagram 1 0 0]), (23868, [Entry 1 True, SHIFT 7632]),
     (23870, [Entry 1 True, SHIFT 8116]), (23872, [Entry 1 True, SHIFT 8092]),
     (23874, [Entry 2 False, REDUCE aux_sym_input_decls_repeat1 2 0 0, SHIFT_REPEAT 7695]),
     (23877, [Entry 1 False, REDUCE aux_sym_input_decls_repeat1 2 0 0]),
     (23879, [Entry 1 False, SHIFT 3191]), (23881, [Entry 1 False, SHIFT 3194]),
     (23883, [Entry 1 False, SHIFT 3374]), (23885, [Entry 1 False, SHIFT 3130]),
     (23887, [Entry 1 False, REDUCE sym_global_var_spec 1 0 17]),
     (23889, [Entry 1 True, REDUCE sym_global_var_spec 1 0 17]),
     (23891, [Entry 1 True, SHIFT 9392]),
     (23893, [Entry 1 False, REDUCE sym_prog_access_decl 5 0 457]),
     (23895, [Entry 1 True, REDUCE sym_prog_access_decl 5 0 457]),
     (23897, [Entry 1 False, SHIFT 8017]), (23899, [Entry 1 False, REDUCE sym_access_spec 1 0 1]),
     (23901, [Entry 1 True, SHIFT 2119]), (23903, [Entry 1 True, SHIFT 2098]),
     (23905, [Entry 1 False, SHIFT 3044]),
     (23907, [Entry 2 False, REDUCE aux_sym_output_decls_repeat1 2 0 0, SHIFT_REPEAT 7695]),
     (23910, [Entry 1 False, REDUCE aux_sym_output_decls_repeat1 2 0 0]),
     (23912, [Entry 1 False, SHIFT 3056]),
     (23914, [Entry 2 False, REDUCE aux_sym_in_out_decls_repeat1 2 0 0, SHIFT_REPEAT 7695]),
     (23917, [Entry 1 False, REDUCE aux_sym_in_out_decls_repeat1 2 0 0]),
     (23919, [Entry 2 False, REDUCE aux_sym_fb_input_decls_repeat1 2 0 0, SHIFT_REPEAT 7695]),
     (23922, [Entry 1 False, REDUCE aux_sym_fb_input_decls_repeat1 2 0 0]),
     (23924, [Entry 1 False, SHIFT 3073]), (23926, [Entry 1 True, SHIFT 1199]),
     (23928, [Entry 1 True, SHIFT 1176]), (23930, [Entry 1 False, SHIFT 7580]),
     (23932, [Entry 1 False, SHIFT 7732]), (23934, [Entry 1 False, SHIFT 3074]),
     (23936, [Entry 1 False, SHIFT 3201]), (23938, [Entry 1 False, SHIFT 7793]),
     (23940, [Entry 1 False, SHIFT 3202])]"

lemma ts_parse_actions_79_tiled: "tiled_from 23630 ts_parse_actions_79 \<and> after_runs 23630 ts_parse_actions_79 = 23942"
  unfolding ts_parse_actions_79_def by (simp cong: runs_weak)

lemma ts_parse_actions_79_ok: "list_all (\<lambda>(i, es). group_ok es) ts_parse_actions_79"
  unfolding ts_parse_actions_79_def
  by (simp add: group_ok_simps entry_action_ok_simps del: One_nat_def group_ok.simps cong: list_all_weak)

text \<open>Lines 492571 to 492720.\<close>

definition ts_parse_actions_80 :: "(nat \<times> TSParseActionEntry list) list" where
  "ts_parse_actions_80 =
    [(23942, [Entry 1 True, REDUCE sym_prog_data_source 1 0 0]),
     (23944, [Entry 1 True, REDUCE sym_data_sink 1 0 0]), (23946, [Entry 1 False, SHIFT 883]),
     (23948, [Entry 1 False, SHIFT 3207]),
     (23950, [Entry 1 False, REDUCE sym_loc_var_spec_init 3 0 247]),
     (23952, [Entry 1 True, REDUCE sym_loc_var_spec_init 3 0 247]),
     (23954, [Entry 1 False, REDUCE sym_access_decl 5 0 666]),
     (23956, [Entry 1 True, REDUCE sym_access_decl 5 0 666]),
     (23958, [Entry 1 False, REDUCE sym_located_at 2 0 0]),
     (23960, [Entry 1 True, REDUCE sym_located_at 2 0 0]), (23962, [Entry 1 False, SHIFT 3213]),
     (23964, [Entry 2 False, REDUCE aux_sym_fb_output_decls_repeat1 2 0 0, SHIFT_REPEAT 7695]),
     (23967, [Entry 1 False, REDUCE aux_sym_fb_output_decls_repeat1 2 0 0]),
     (23969, [Entry 1 False, REDUCE sym_ERR_doubled_global_qualifier 2 0 47]),
     (23971, [Entry 1 False, SHIFT 3181]), (23973, [Entry 1 False, SHIFT 3363]),
     (23975, [Entry 1 False, SHIFT 7771]), (23977, [Entry 1 False, SHIFT 3368]),
     (23979, [Entry 1 False, SHIFT 3127]), (23981, [Entry 1 False, SHIFT 3103]),
     (23983, [Entry 1 False, SHIFT 3161]), (23985, [Entry 1 False, REDUCE sym_access_spec 1 0 0]),
     (23987, [Entry 1 False, SHIFT 882]),
     (23989, [Entry 1 True, REDUCE aux_sym_ladder_diagram_repeat1 2 0 0]),
     (23991, [Entry 2 True, REDUCE aux_sym_ladder_diagram_repeat1 2 0 0, SHIFT_REPEAT 7683]),
     (23994, [Entry 1 False, SHIFT 3186]), (23996, [Entry 1 False, SHIFT 3180]),
     (23998, [Entry 2 False, REDUCE aux_sym_temp_var_decls_repeat1 2 0 0, SHIFT_REPEAT 7695]),
     (24001, [Entry 1 False, REDUCE aux_sym_temp_var_decls_repeat1 2 0 0]),
     (24003, [Entry 1 False, SHIFT 3189]), (24005, [Entry 1 False, SHIFT 3093]),
     (24007, [Entry 1 False, REDUCE sym_prog_access_decl 7 0 1200]),
     (24009, [Entry 1 True, REDUCE sym_prog_access_decl 7 0 1200]),
     (24011, [Entry 1 False, SHIFT 3147]), (24013, [Entry 1 True, SHIFT 3306]),
     (24015, [Entry 1 False, SHIFT 8148]), (24017, [Entry 1 False, SHIFT 7601]),
     (24019, [Entry 1 False, REDUCE sym_struct_elem_decl 5 0 758]),
     (24021, [Entry 1 True, REDUCE sym_struct_elem_decl 5 0 758]),
     (24023, [Entry 1 True, REDUCE sym_step_name 1 0 0]),
     (24025, [Entry 1 False, REDUCE sym_step_name 1 0 0]), (24027, [Entry 1 True, SHIFT 2974]),
     (24029, [Entry 1 True, SHIFT 7570]), (24031, [Entry 1 False, SHIFT 3065]),
     (24033, [Entry 2 False, REDUCE aux_sym_external_var_decls_repeat1 2 0 0, SHIFT_REPEAT 7580]),
     (24036, [Entry 1 False, REDUCE aux_sym_external_var_decls_repeat1 2 0 0]),
     (24038, [Entry 1 False, SHIFT 2955]), (24040, [Entry 1 True, SHIFT 2316]),
     (24042, [Entry 1 True, SHIFT 3115]), (24044, [Entry 1 True, SHIFT 42]),
     (24046, [Entry 1 True, SHIFT 2317]), (24048, [Entry 1 True, SHIFT 3116]),
     (24050, [Entry 2 False, REDUCE aux_sym_global_var_decls_repeat1 2 0 0, SHIFT_REPEAT 7640]),
     (24053, [Entry 1 False, REDUCE aux_sym_global_var_decls_repeat1 2 0 0]),
     (24055, [Entry 1 False, REDUCE sym_config_inst_init 2 0 18]),
     (24057, [Entry 1 True, REDUCE sym_config_inst_init 2 0 18]),
     (24059, [Entry 1 True, REDUCE sym_access_path 1 0 18]), (24061, [Entry 1 True, SHIFT 7571]),
     (24063, [Entry 1 True, SHIFT 7466]), (24065, [Entry 1 False, SHIFT 3052]),
     (24067, [Entry 1 False, SHIFT 3054]), (24069, [Entry 1 False, SHIFT 7595]),
     (24071, [Entry 2 False, REDUCE aux_sym_initial_step_repeat1 2 0 0, SHIFT_REPEAT 8148]),
     (24074, [Entry 1 False, REDUCE aux_sym_initial_step_repeat1 2 0 0]),
     (24076, [Entry 1 False, REDUCE sym_struct_elem_decl 4 0 41]),
     (24078, [Entry 1 True, REDUCE sym_struct_elem_decl 4 0 41]),
     (24080, [Entry 1 False, SHIFT 2957]), (24082, [Entry 1 False, SHIFT 7611]),
     (24084, [Entry 1 False, SHIFT_EXTRA]), (24086, [Entry 1 False, SHIFT 9798]),
     (24088, [Entry 1 False, SHIFT 7943]),
     (24090, [Entry 1 False, REDUCE aux_sym_config_init_repeat1 1 0 0]),
     (24092, [Entry 1 True, SHIFT 7903]), (24094, [Entry 1 False, SHIFT 7613]),
     (24096, [Entry 1 False, REDUCE aux_sym_struct_type_spec_repeat1 1 0 0]),
     (24098, [Entry 1 True, SHIFT 7874]),
     (24100, [Entry 1 False, REDUCE sym_struct_elem_decl 6 0 1185]),
     (24102, [Entry 1 True, REDUCE sym_struct_elem_decl 6 0 1185]),
     (24104, [Entry 1 False, SHIFT 3358]), (24106, [Entry 1 False, SHIFT 3361]),
     (24108, [Entry 1 False, SHIFT 3366]), (24110, [Entry 1 True, SHIFT 2329]),
     (24112, [Entry 1 True, SHIFT 3170]),
     (24114, [Entry 1 False, REDUCE sym_ERR_doubled_qualifier 2 0 47]),
     (24116, [Entry 1 False, SHIFT 7785]),
     (24118, [Entry 1 True, REDUCE aux_sym_if_stmt_repeat1 2 0 0]),
     (24120, [Entry 2 True, REDUCE aux_sym_if_stmt_repeat1 2 0 0, SHIFT_REPEAT 42]),
     (24123, [Entry 1 False, SHIFT 3360]), (24125, [Entry 1 False, SHIFT 3348]),
     (24127, [Entry 1 False, REDUCE aux_sym_ERR_doubled_qualifier_repeat1 2 0 0]),
     (24129, [Entry 2 False, REDUCE aux_sym_ERR_doubled_qualifier_repeat1 2 0 0, SHIFT_REPEAT 7785]),
     (24132, [Entry 1 True, SHIFT 2323]), (24134, [Entry 1 True, SHIFT 2149]),
     (24136, [Entry 1 True, SHIFT 2324]), (24138, [Entry 1 True, SHIFT 2150]),
     (24140, [Entry 1 True, SHIFT 2326]), (24142, [Entry 1 True, SHIFT 2183]),
     (24144, [Entry 1 False, SHIFT 3214]), (24146, [Entry 1 False, SHIFT 3216]),
     (24148, [Entry 1 False, SHIFT 3219]), (24150, [Entry 1 False, SHIFT 3235]),
     (24152, [Entry 1 False, SHIFT 3238]),
     (24154, [Entry 1 False, REDUCE sym_struct_elem_decl 5 0 756]),
     (24156, [Entry 1 True, REDUCE sym_struct_elem_decl 5 0 756]),
     (24158, [Entry 1 False, REDUCE sym_config_inst_init 3 0 18]),
     (24160, [Entry 1 True, REDUCE sym_config_inst_init 3 0 18]),
     (24162, [Entry 1 True, REDUCE sym_finally_clause 2 0 58]), (24164, [Entry 1 True, SHIFT 7084]),
     (24166, [Entry 1 False, SHIFT 8203]), (24168, [Entry 1 True, SHIFT 3681]),
     (24170, [Entry 1 True, SHIFT 7132]), (24172, [Entry 1 False, SHIFT 8182]),
     (24174, [Entry 1 False, SHIFT 7810]), (24176, [Entry 1 False, SHIFT 10442]),
     (24178, [Entry 1 False, SHIFT 7413]), (24180, [Entry 1 False, SHIFT 7411]),
     (24182, [Entry 1 True, SHIFT 2101]), (24184, [Entry 1 True, SHIFT 7702]),
     (24186, [Entry 1 True, SHIFT 8204]), (24188, [Entry 1 True, SHIFT 2553]),
     (24190, [Entry 1 True, SHIFT 4527]), (24192, [Entry 1 False, SHIFT 9673]),
     (24194, [Entry 1 False, SHIFT 6700]), (24196, [Entry 1 True, SHIFT 9798]),
     (24198, [Entry 1 True, REDUCE sym_subrange 3 0 436]), (24200, [Entry 1 False, SHIFT 8685]),
     (24202, [Entry 1 False, SHIFT 3111]), (24204, [Entry 1 True, SHIFT 4701]),
     (24206, [Entry 1 False, REDUCE sym_var_decl_init_list 2 0 48]),
     (24208, [Entry 1 True, REDUCE sym_var_decl_init_list 2 0 48]),
     (24210, [Entry 2 False, REDUCE aux_sym_access_decls_repeat1 2 0 0, SHIFT_REPEAT 10442]),
     (24213, [Entry 1 False, REDUCE aux_sym_access_decls_repeat1 2 0 0]),
     (24215, [Entry 1 True, SHIFT 10297]), (24217, [Entry 1 True, SHIFT 10304]),
     (24219, [Entry 1 True, SHIFT 7384]), (24221, [Entry 1 True, SHIFT 10321]),
     (24223, [Entry 1 False, REDUCE sym_loc_var_decl 2 0 50]),
     (24225, [Entry 1 True, REDUCE sym_loc_var_decl 2 0 50]),
     (24227, [Entry 2 False, REDUCE aux_sym_loc_partly_var_decl_repeat1 2 0 0, SHIFT_REPEAT 8685]),
     (24230, [Entry 1 False, REDUCE aux_sym_loc_partly_var_decl_repeat1 2 0 0]),
     (24232, [Entry 1 False, SHIFT 902]), (24234, [Entry 1 False, SHIFT 8112]),
     (24236, [Entry 1 False, SHIFT 9481]), (24238, [Entry 1 False, SHIFT 8509]),
     (24240, [Entry 1 False, SHIFT 3067]), (24242, [Entry 1 True, REDUCE sym_catch_clause 2 0 58]),
     (24244, [Entry 1 True, REDUCE sym_catch_clause 5 0 466]),
     (24246, [Entry 1 False, REDUCE sym_array_conformand 5 0 766]),
     (24248, [Entry 1 True, REDUCE sym_array_conformand 5 0 766]),
     (24250, [Entry 1 False, SHIFT 2971])]"

lemma ts_parse_actions_80_tiled: "tiled_from 23942 ts_parse_actions_80 \<and> after_runs 23942 ts_parse_actions_80 = 24252"
  unfolding ts_parse_actions_80_def by (simp cong: runs_weak)

lemma ts_parse_actions_80_ok: "list_all (\<lambda>(i, es). group_ok es) ts_parse_actions_80"
  unfolding ts_parse_actions_80_def
  by (simp add: group_ok_simps entry_action_ok_simps del: One_nat_def group_ok.simps cong: list_all_weak)

text \<open>Lines 492721 to 492870.\<close>

definition ts_parse_actions_81 :: "(nat \<times> TSParseActionEntry list) list" where
  "ts_parse_actions_81 =
    [(24252, [Entry 1 True, SHIFT 8110]), (24254, [Entry 1 True, SHIFT 7373]),
     (24256, [Entry 1 False, SHIFT 7870]), (24258, [Entry 1 False, SHIFT 3158]),
     (24260, [Entry 1 True, SHIFT 7407]), (24262, [Entry 1 True, SHIFT 2361]),
     (24264, [Entry 1 True, SHIFT 8138]), (24266, [Entry 1 True, SHIFT 6550]),
     (24268, [Entry 2 False, REDUCE aux_sym_data_type_decl_repeat1 2 0 0, SHIFT_REPEAT 9673]),
     (24271, [Entry 1 False, REDUCE aux_sym_data_type_decl_repeat1 2 0 0]),
     (24273, [Entry 1 True, SHIFT 7399]), (24275, [Entry 1 True, SHIFT 3125]),
     (24277, [Entry 1 True, SHIFT 8199]),
     (24279, [Entry 1 True, REDUCE sym_global_var_spec 2 0 54]),
     (24281, [Entry 1 True, SHIFT 2357]), (24283, [Entry 1 True, SHIFT 7388]),
     (24285, [Entry 1 False, SHIFT 7216]), (24287, [Entry 1 False, SHIFT 6647]),
     (24289, [Entry 1 True, SHIFT 2378]), (24291, [Entry 1 False, SHIFT 7218]),
     (24293, [Entry 1 True, SHIFT 1204]), (24295, [Entry 1 True, SHIFT 1205]),
     (24297, [Entry 1 False, SHIFT 7198]), (24299, [Entry 1 True, SHIFT 2292]),
     (24301, [Entry 1 True, SHIFT 7375]), (24303, [Entry 1 True, SHIFT 2124]),
     (24305, [Entry 1 True, SHIFT 2125]), (24307, [Entry 1 True, SHIFT 1178]),
     (24309, [Entry 1 True, SHIFT 3089]), (24311, [Entry 1 True, SHIFT 5376]),
     (24313, [Entry 1 False, SHIFT 7205]), (24315, [Entry 1 True, SHIFT 2134]),
     (24317, [Entry 1 True, SHIFT 5612]),
     (24319, [Entry 1 False, REDUCE aux_sym_var_decls_repeat1 1 0 0]),
     (24321, [Entry 1 True, SHIFT 8029]), (24323, [Entry 1 False, SHIFT 3204]),
     (24325, [Entry 1 False, SHIFT 3075]), (24327, [Entry 1 False, SHIFT 3220]),
     (24329, [Entry 1 False, SHIFT 3223]),
     (24331, [Entry 2 False, REDUCE aux_sym_prog_access_decls_repeat1 2 0 0, SHIFT_REPEAT 8509]),
     (24334, [Entry 1 False, REDUCE aux_sym_prog_access_decls_repeat1 2 0 0]),
     (24336, [Entry 1 False, SHIFT 909]), (24338, [Entry 1 False, SHIFT 8109]),
     (24340, [Entry 1 False, SHIFT 9626]),
     (24342, [Entry 1 False, REDUCE sym_loc_var_decl 3 0 112]),
     (24344, [Entry 1 True, REDUCE sym_loc_var_decl 3 0 112]), (24346, [Entry 1 False, SHIFT 3243]),
     (24348, [Entry 1 False, SHIFT 8185]), (24350, [Entry 1 False, SHIFT 7912]),
     (24352, [Entry 1 False, SHIFT 918]), (24354, [Entry 1 False, SHIFT 8184]),
     (24356, [Entry 1 False, SHIFT 10467]),
     (24358, [Entry 2 True, REDUCE aux_sym_interface_decl_repeat1 2 0 0, SHIFT_REPEAT 7590]),
     (24361, [Entry 1 True, REDUCE aux_sym_interface_decl_repeat1 2 0 0]),
     (24363, [Entry 1 True, REDUCE aux_sym_global_var_spec_repeat1 2 0 113]),
     (24365, [Entry 2 True, REDUCE aux_sym_global_var_spec_repeat1 2 0 113, SHIFT_REPEAT 9392]),
     (24368, [Entry 1 False, SHIFT 8096]), (24370, [Entry 1 False, SHIFT 925]),
     (24372, [Entry 1 False, SHIFT 8190]), (24374, [Entry 1 False, SHIFT 10483]),
     (24376, [Entry 1 False, SHIFT 934]), (24378, [Entry 1 False, SHIFT 8197]),
     (24380, [Entry 1 False, SHIFT 10508]), (24382, [Entry 1 True, SHIFT 7398]),
     (24384, [Entry 1 False, SHIFT 901]), (24386, [Entry 1 False, SHIFT 8201]),
     (24388, [Entry 1 False, SHIFT 10520]),
     (24390, [Entry 1 False, REDUCE sym_var_decl_init 3 0 247]),
     (24392, [Entry 1 True, REDUCE sym_var_decl_init 3 0 247]), (24394, [Entry 1 True, SHIFT 8137]),
     (24396, [Entry 1 True, SHIFT 8024]), (24398, [Entry 1 True, SHIFT 8093]),
     (24400, [Entry 1 True, SHIFT 7852]),
     (24402, [Entry 1 False, REDUCE aux_sym_access_decls_repeat1 1 0 0]),
     (24404, [Entry 1 True, SHIFT 8100]),
     (24406, [Entry 2 True, REDUCE aux_sym_array_type_init_repeat1 2 0 0, SHIFT_REPEAT 8]),
     (24409, [Entry 1 True, REDUCE aux_sym_array_type_init_repeat1 2 0 0]),
     (24411, [Entry 1 False, REDUCE sym__external_var_kind 1 0 0]),
     (24413, [Entry 1 True, REDUCE sym__external_var_kind 1 0 0]),
     (24415, [Entry 1 False, REDUCE sym_external_decl 2 0 52]),
     (24417, [Entry 1 True, REDUCE sym_external_decl 2 0 52]),
     (24419, [Entry 1 False, REDUCE aux_sym_prog_access_decls_repeat1 1 0 0]),
     (24421, [Entry 1 True, SHIFT 8132]), (24423, [Entry 1 True, SHIFT 8587]),
     (24425, [Entry 1 True, SHIFT 7395]),
     (24427, [Entry 1 True, REDUCE aux_sym_case_list_repeat1 2 0 0]),
     (24429, [Entry 2 True, REDUCE aux_sym_case_list_repeat1 2 0 0, SHIFT_REPEAT 26]),
     (24432, [Entry 2 True, REDUCE aux_sym_extern_param_list_repeat1 2 0 763, SHIFT_REPEAT 8195]),
     (24435, [Entry 1 True, REDUCE aux_sym_extern_param_list_repeat1 2 0 763]),
     (24437, [Entry 2 True, REDUCE aux_sym_prog_conf_elems_repeat1 2 0 0, SHIFT_REPEAT 7381]),
     (24440, [Entry 1 True, REDUCE aux_sym_prog_conf_elems_repeat1 2 0 0]),
     (24442, [Entry 1 False, SHIFT 92]), (24444, [Entry 1 False, SHIFT 10247]),
     (24446, [Entry 1 True, SHIFT 25]), (24448, [Entry 1 True, SHIFT 2975]),
     (24450, [Entry 1 False, SHIFT 3275]), (24452, [Entry 1 False, SHIFT 8174]),
     (24454, [Entry 2 True, REDUCE aux_sym_enum_spec_repeat1 2 0 0, SHIFT_REPEAT 8111]),
     (24457, [Entry 1 True, REDUCE aux_sym_enum_spec_repeat1 2 0 0]),
     (24459, [Entry 1 True, SHIFT 27]), (24461, [Entry 1 True, REDUCE sym_ranges 2 0 0]),
     (24463, [Entry 1 True, SHIFT 8111]), (24465, [Entry 1 True, SHIFT 7582]),
     (24467, [Entry 1 True, REDUCE sym_struct_init 3 0 0]), (24469, [Entry 1 True, SHIFT 10024]),
     (24471, [Entry 1 False, REDUCE sym_array_conformand 8 0 2116]),
     (24473, [Entry 1 True, REDUCE sym_array_conformand 8 0 2116]),
     (24475, [Entry 1 True, SHIFT 7402]), (24477, [Entry 1 True, SHIFT 7415]),
     (24479, [Entry 1 True, SHIFT 7936]), (24481, [Entry 1 True, SHIFT 7610]),
     (24483, [Entry 1 True, SHIFT 8685]),
     (24485, [Entry 2 True, REDUCE aux_sym_ladder_diagram_repeat1 2 0 0, SHIFT_REPEAT 7946]),
     (24488, [Entry 1 True, SHIFT 7596]),
     (24490, [Entry 1 False, REDUCE sym_loc_partly_var 7 0 1359]),
     (24492, [Entry 1 True, REDUCE sym_loc_partly_var 7 0 1359]),
     (24494, [Entry 1 False, REDUCE aux_sym_initial_step_repeat1 1 0 0]),
     (24496, [Entry 1 True, SHIFT 8189]), (24498, [Entry 1 True, REDUCE sym_init_elem 1 0 0]),
     (24500, [Entry 1 True, SHIFT 13]), (24502, [Entry 1 True, SHIFT 7456]),
     (24504, [Entry 2 True, REDUCE aux_sym_fb_diagram_repeat1 2 0 0, SHIFT_REPEAT 7952]),
     (24507, [Entry 1 True, SHIFT 8]), (24509, [Entry 1 True, SHIFT 7462]),
     (24511, [Entry 1 True, REDUCE sym_steps 4 0 0]),
     (24513, [Entry 1 False, REDUCE sym_steps 4 0 0]),
     (24515, [Entry 2 True, REDUCE aux_sym_steps_repeat1 2 0 0, SHIFT_REPEAT 8164]),
     (24518, [Entry 1 True, REDUCE aux_sym_steps_repeat1 2 0 0]),
     (24520, [Entry 1 True, SHIFT 7405]), (24522, [Entry 1 True, SHIFT 7406]),
     (24524, [Entry 1 True, REDUCE sym_relative_offset 1 0 0]),
     (24526, [Entry 1 False, REDUCE aux_sym_input_decls_repeat1 1 0 0]),
     (24528, [Entry 1 True, SHIFT 8090]), (24530, [Entry 1 True, SHIFT 3102]),
     (24532, [Entry 1 True, SHIFT 8737]), (24534, [Entry 1 True, SHIFT 36]),
     (24536, [Entry 1 True, REDUCE sym_index_value 2 0 0]), (24538, [Entry 1 True, SHIFT 59]),
     (24540, [Entry 1 False, SHIFT 8167]), (24542, [Entry 1 False, REDUCE sym_type_decl 4 0 41]),
     (24544, [Entry 1 True, REDUCE sym_type_decl 4 0 41]),
     (24546, [Entry 1 False, REDUCE sym_ERR_invalid_edge_qualifier 1 0 0]),
     (24548, [Entry 1 True, REDUCE sym_ERR_invalid_edge_qualifier 1 0 0]),
     (24550, [Entry 1 False, REDUCE sym_variadic_decl 3 0 245]),
     (24552, [Entry 1 True, REDUCE sym_variadic_decl 3 0 245]),
     (24554, [Entry 1 False, REDUCE sym_edge_decl 3 0 246]),
     (24556, [Entry 1 True, REDUCE sym_edge_decl 3 0 246]),
     (24558, [Entry 1 False, REDUCE sym_fb_input_var 2 0 48]),
     (24560, [Entry 1 True, REDUCE sym_fb_input_var 2 0 48]),
     (24562, [Entry 1 False, REDUCE sym_var_decl 3 0 247])]"

lemma ts_parse_actions_81_tiled: "tiled_from 24252 ts_parse_actions_81 \<and> after_runs 24252 ts_parse_actions_81 = 24564"
  unfolding ts_parse_actions_81_def by (simp cong: runs_weak)

lemma ts_parse_actions_81_ok: "list_all (\<lambda>(i, es). group_ok es) ts_parse_actions_81"
  unfolding ts_parse_actions_81_def
  by (simp add: group_ok_simps entry_action_ok_simps del: One_nat_def group_ok.simps cong: list_all_weak)

text \<open>Lines 492871 to 493020.\<close>

definition ts_parse_actions_82 :: "(nat \<times> TSParseActionEntry list) list" where
  "ts_parse_actions_82 =
    [(24564, [Entry 1 True, REDUCE sym_var_decl 3 0 247]),
     (24566, [Entry 1 False, REDUCE sym_ref_spec 3 0 0]),
     (24568, [Entry 1 True, REDUCE sym_ref_spec 3 0 0]),
     (24570, [Entry 1 True, REDUCE sym_fb_body 1 0 0]),
     (24572, [Entry 1 False, REDUCE aux_sym_temp_var_decls_repeat1 1 0 0]),
     (24574, [Entry 1 True, SHIFT 8128]), (24576, [Entry 1 True, SHIFT 7608]),
     (24578, [Entry 1 True, REDUCE sym_ranges 1 0 0]), (24580, [Entry 1 True, SHIFT 8091]),
     (24582, [Entry 1 True, SHIFT 7387]), (24584, [Entry 1 True, SHIFT 2300]),
     (24586, [Entry 1 True, SHIFT 8136]),
     (24588, [Entry 1 False, REDUCE sym_action_association 4 0 0]),
     (24590, [Entry 1 True, REDUCE sym_action_association 4 0 0]),
     (24592, [Entry 1 True, SHIFT 7994]), (24594, [Entry 1 True, SHIFT 8014]),
     (24596, [Entry 1 False, REDUCE sym_action_association 4 0 923]),
     (24598, [Entry 1 True, REDUCE sym_action_association 4 0 923]),
     (24600, [Entry 2 True, REDUCE aux_sym_action_association_repeat1 2 0 924, SHIFT_REPEAT 7994]),
     (24603, [Entry 1 True, REDUCE aux_sym_action_association_repeat1 2 0 924]),
     (24605, [Entry 1 False, REDUCE sym__fb_output_var_kind 1 0 0]),
     (24607, [Entry 1 True, REDUCE sym__fb_output_var_kind 1 0 0]),
     (24609, [Entry 1 True, SHIFT 9289]), (24611, [Entry 1 True, SHIFT 8147]),
     (24613, [Entry 1 True, SHIFT 2056]), (24615, [Entry 1 True, SHIFT 2057]),
     (24617, [Entry 1 True, REDUCE sym_array_index_elem 3 0 759]),
     (24619, [Entry 1 True, REDUCE sym_struct_elem 3 0 761]),
     (24621, [Entry 1 True, REDUCE sym_struct_elem_decl_attributes 1 0 103]),
     (24623, [Entry 1 False, REDUCE sym_fb_output_var 2 0 48]),
     (24625, [Entry 1 True, REDUCE sym_fb_output_var 2 0 48]),
     (24627, [Entry 1 False, REDUCE sym_global_var_decl 2 0 55]),
     (24629, [Entry 1 True, REDUCE sym_global_var_decl 2 0 55]),
     (24631, [Entry 1 True, REDUCE sym_relative_offset 2 0 0]),
     (24633, [Entry 1 False, REDUCE sym__global_var_kind 1 0 0]),
     (24635, [Entry 1 True, REDUCE sym__global_var_kind 1 0 0]),
     (24637, [Entry 1 True, SHIFT 7618]),
     (24639, [Entry 1 False, REDUCE aux_sym_output_decls_repeat1 1 0 0]),
     (24641, [Entry 1 True, SHIFT 8143]),
     (24643, [Entry 1 False, REDUCE sym_action_association 3 0 0]),
     (24645, [Entry 1 True, REDUCE sym_action_association 3 0 0]),
     (24647, [Entry 1 False, REDUCE aux_sym_external_var_decls_repeat1 1 0 0]),
     (24649, [Entry 1 True, SHIFT 8114]),
     (24651, [Entry 1 True, REDUCE aux_sym_action_association_repeat1 1 0 567]),
     (24653, [Entry 1 True, SHIFT 8118]), (24655, [Entry 1 True, SHIFT 7976]),
     (24657, [Entry 1 False, REDUCE aux_sym_data_type_decl_repeat1 1 0 0]),
     (24659, [Entry 1 True, SHIFT 8126]), (24661, [Entry 1 True, SHIFT 7978]),
     (24663, [Entry 1 False, REDUCE sym_array_conformand 7 0 1665]),
     (24665, [Entry 1 True, REDUCE sym_array_conformand 7 0 1665]),
     (24667, [Entry 1 False, SHIFT 2341]), (24669, [Entry 1 False, SHIFT 10339]),
     (24671, [Entry 1 True, SHIFT 10077]), (24673, [Entry 1 True, SHIFT 1206]),
     (24675, [Entry 1 True, SHIFT 10078]), (24677, [Entry 1 True, SHIFT 1207]),
     (24679, [Entry 1 True, SHIFT 2099]), (24681, [Entry 1 True, SHIFT 10470]),
     (24683, [Entry 1 True, REDUCE sym_repeat_values 1 0 0]), (24685, [Entry 1 True, SHIFT 7374]),
     (24687, [Entry 1 True, REDUCE sym_case_list 2 0 0]), (24689, [Entry 1 True, SHIFT 26]),
     (24691, [Entry 1 True, REDUCE sym_variable_list 2 0 0]), (24693, [Entry 1 True, SHIFT 3087]),
     (24695, [Entry 1 False, REDUCE sym_var_spec 1 0 0]),
     (24697, [Entry 1 True, REDUCE sym_var_spec 1 0 0]), (24699, [Entry 1 True, SHIFT 7946]),
     (24701, [Entry 1 True, SHIFT 2071]),
     (24703, [Entry 1 False, REDUCE sym__fb_input_var_kind 1 0 0]),
     (24705, [Entry 1 True, REDUCE sym__fb_input_var_kind 1 0 0]),
     (24707, [Entry 1 True, REDUCE sym_array_values 2 0 0]), (24709, [Entry 1 True, SHIFT 7952]),
     (24711, [Entry 1 False, REDUCE sym_action_association 5 0 1360]),
     (24713, [Entry 1 True, REDUCE sym_action_association 5 0 1360]),
     (24715, [Entry 1 True, SHIFT 2132]),
     (24717, [Entry 1 True, REDUCE aux_sym_variable_list_repeat1 2 0 0]),
     (24719, [Entry 2 True, REDUCE aux_sym_variable_list_repeat1 2 0 0, SHIFT_REPEAT 8974]),
     (24722, [Entry 1 False, REDUCE sym_access_direction 1 0 0]),
     (24724, [Entry 1 True, REDUCE sym_access_direction 1 0 0]),
     (24726, [Entry 2 True, REDUCE aux_sym_struct_type_init_repeat1 2 0 0, SHIFT_REPEAT 13]),
     (24729, [Entry 1 True, REDUCE aux_sym_struct_type_init_repeat1 2 0 0]),
     (24731, [Entry 2 True, REDUCE aux_sym_ranges_repeat1 2 0 0, SHIFT_REPEAT 27]),
     (24734, [Entry 1 True, REDUCE aux_sym_ranges_repeat1 2 0 0]),
     (24736, [Entry 2 True, REDUCE aux_sym_func_call_repeat1 2 0 0, SHIFT_REPEAT 25]),
     (24739, [Entry 1 True, REDUCE aux_sym_func_call_repeat1 2 0 0]),
     (24741, [Entry 1 True, SHIFT 2077]),
     (24743, [Entry 2 True, REDUCE aux_sym_index_value_repeat1 2 0 0, SHIFT_REPEAT 36]),
     (24746, [Entry 1 True, REDUCE aux_sym_index_value_repeat1 2 0 0]),
     (24748, [Entry 1 True, SHIFT 2164]), (24750, [Entry 1 True, REDUCE sym_struct_init 4 0 0]),
     (24752, [Entry 1 False, REDUCE sym_prog_access_decl 6 0 781]),
     (24754, [Entry 1 True, REDUCE sym_prog_access_decl 6 0 781]),
     (24756, [Entry 1 True, SHIFT 2979]), (24758, [Entry 1 True, REDUCE sym_index_value 1 0 0]),
     (24760, [Entry 1 False, REDUCE sym_input_var 2 0 48]),
     (24762, [Entry 1 True, REDUCE sym_input_var 2 0 48]),
     (24764, [Entry 2 True, REDUCE aux_sym_struct_init_repeat1 2 0 0, SHIFT_REPEAT 8137]),
     (24767, [Entry 1 True, REDUCE aux_sym_struct_init_repeat1 2 0 0]),
     (24769, [Entry 1 True, SHIFT 7381]), (24771, [Entry 1 True, SHIFT 7393]),
     (24773, [Entry 1 True, SHIFT 1143]), (24775, [Entry 1 True, SHIFT 1148]),
     (24777, [Entry 1 True, REDUCE sym_repeat_values 2 0 0]),
     (24779, [Entry 1 False, REDUCE aux_sym_in_out_decls_repeat1 1 0 0]),
     (24781, [Entry 1 True, SHIFT 8160]), (24783, [Entry 1 True, SHIFT 7371]),
     (24785, [Entry 1 False, REDUCE sym__input_var_kind 1 0 0]),
     (24787, [Entry 1 True, REDUCE sym__input_var_kind 1 0 0]),
     (24789, [Entry 1 True, REDUCE sym_array_index_elem 4 0 1186]),
     (24791, [Entry 1 True, SHIFT 9571]), (24793, [Entry 1 True, SHIFT 2097]),
     (24795, [Entry 1 True, REDUCE sym_case_list_elem 1 0 0]), (24797, [Entry 1 True, SHIFT 38]),
     (24799, [Entry 1 True, REDUCE sym_case_list 1 0 0]),
     (24801, [Entry 1 False, REDUCE sym__temp_var_kind 1 0 0]),
     (24803, [Entry 1 True, REDUCE sym__temp_var_kind 1 0 0]),
     (24805, [Entry 1 False, REDUCE sym_temp_var 2 0 48]),
     (24807, [Entry 1 True, REDUCE sym_temp_var 2 0 48]), (24809, [Entry 1 True, SHIFT 1163]),
     (24811, [Entry 1 True, SHIFT 10509]), (24813, [Entry 1 True, SHIFT 9581]),
     (24815, [Entry 1 True, SHIFT 2064]), (24817, [Entry 1 True, SHIFT 3030]),
     (24819, [Entry 1 False, REDUCE sym_prog_access_decl 8 0 1671]),
     (24821, [Entry 1 True, REDUCE sym_prog_access_decl 8 0 1671]),
     (24823, [Entry 1 False, REDUCE sym__output_var_kind 1 0 0]),
     (24825, [Entry 1 True, REDUCE sym__output_var_kind 1 0 0]),
     (24827, [Entry 1 True, SHIFT 7958]), (24829, [Entry 1 True, SHIFT 8123]),
     (24831, [Entry 1 False, REDUCE aux_sym_loc_partly_var_decl_repeat1 1 0 0]),
     (24833, [Entry 1 True, SHIFT 8105]), (24835, [Entry 1 True, REDUCE sym_else_if_stmt 4 0 782]),
     (24837, [Entry 1 False, SHIFT 93]), (24839, [Entry 1 False, SHIFT 10190]),
     (24841, [Entry 1 False, REDUCE sym_output_var 2 0 48]),
     (24843, [Entry 1 True, REDUCE sym_output_var 2 0 48]),
     (24845, [Entry 1 True, REDUCE sym_struct_init 2 0 0]), (24847, [Entry 1 True, SHIFT 2052]),
     (24849, [Entry 1 True, SHIFT 7940]),
     (24851, [Entry 1 False, REDUCE sym_ERR_variadic_fb_input 1 0 0]),
     (24853, [Entry 1 True, REDUCE sym_ERR_variadic_fb_input 1 0 0]),
     (24855, [Entry 1 True, REDUCE sym_array_init 3 0 760]), (24857, [Entry 1 True, SHIFT 2051]),
     (24859, [Entry 1 False, REDUCE sym__in_out_var_kind 1 0 0]),
     (24861, [Entry 1 True, REDUCE sym__in_out_var_kind 1 0 0]),
     (24863, [Entry 1 False, REDUCE aux_sym_fb_input_decls_repeat1 1 0 0]),
     (24865, [Entry 1 True, SHIFT 8181]), (24867, [Entry 1 True, SHIFT 8164]),
     (24869, [Entry 1 True, SHIFT 7954])]"

lemma ts_parse_actions_82_tiled: "tiled_from 24564 ts_parse_actions_82 \<and> after_runs 24564 ts_parse_actions_82 = 24871"
  unfolding ts_parse_actions_82_def by (simp cong: runs_weak)

lemma ts_parse_actions_82_ok: "list_all (\<lambda>(i, es). group_ok es) ts_parse_actions_82"
  unfolding ts_parse_actions_82_def
  by (simp add: group_ok_simps entry_action_ok_simps del: One_nat_def group_ok.simps cong: list_all_weak)

text \<open>Lines 493021 to 493170.\<close>

definition ts_parse_actions_83 :: "(nat \<times> TSParseActionEntry list) list" where
  "ts_parse_actions_83 =
    [(24871, [Entry 1 True, REDUCE sym_array_values 1 0 0]),
     (24873, [Entry 1 True, REDUCE aux_sym_allow_pragma_repeat1 2 0 14]),
     (24875, [Entry 2 True, REDUCE aux_sym_allow_pragma_repeat1 2 0 14, SHIFT_REPEAT 8136]),
     (24878, [Entry 1 True, SHIFT 1184]), (24880, [Entry 1 True, SHIFT 1186]),
     (24882, [Entry 1 False, REDUCE sym_in_out_var 2 0 48]),
     (24884, [Entry 1 True, REDUCE sym_in_out_var 2 0 48]), (24886, [Entry 1 True, SHIFT 7468]),
     (24888, [Entry 2 True, REDUCE sym_init_elem 1 0 0, SHIFT 36]),
     (24891, [Entry 2 True, REDUCE sym_init_elem 1 0 0, REDUCE sym_index_value 1 0 0]),
     (24894, [Entry 1 True, REDUCE aux_sym_global_var_spec_repeat1 2 0 5]),
     (24896, [Entry 1 False, REDUCE aux_sym_global_var_decls_repeat1 1 0 0]),
     (24898, [Entry 1 True, SHIFT 8142]), (24900, [Entry 1 True, SHIFT 7377]),
     (24902, [Entry 1 False, REDUCE sym_access_decl 6 0 1045]),
     (24904, [Entry 1 True, REDUCE sym_access_decl 6 0 1045]), (24906, [Entry 1 True, SHIFT 8206]),
     (24908, [Entry 1 True, SHIFT 7397]), (24910, [Entry 1 True, SHIFT 7454]),
     (24912, [Entry 1 False, REDUCE aux_sym_fb_output_decls_repeat1 1 0 0]),
     (24914, [Entry 1 True, SHIFT 8131]),
     (24916, [Entry 2 True, REDUCE aux_sym_array_conformand_repeat1 2 0 1188, SHIFT_REPEAT 8093]),
     (24919, [Entry 1 True, REDUCE aux_sym_array_conformand_repeat1 2 0 1188]),
     (24921, [Entry 1 True, SHIFT 7382]), (24923, [Entry 1 True, SHIFT 8195]),
     (24925, [Entry 1 True, SHIFT 8141]), (24927, [Entry 1 True, REDUCE sym_steps 1 0 0]),
     (24929, [Entry 1 False, REDUCE sym_steps 1 0 0]),
     (24931, [Entry 1 True, REDUCE sym_method_prototype 6 0 662]),
     (24933, [Entry 1 True, SHIFT 8575]), (24935, [Entry 1 True, SHIFT 8577]),
     (24937, [Entry 1 True, REDUCE sym_ERR_interval_after_priority 4 0 1048]),
     (24939, [Entry 1 True, SHIFT 8578]), (24941, [Entry 1 True, SHIFT 8579]),
     (24943, [Entry 1 True, REDUCE sym_action_time 1 0 0]), (24945, [Entry 1 True, SHIFT 7864]),
     (24947, [Entry 1 True, SHIFT 10484]), (24949, [Entry 1 True, SHIFT 8581]),
     (24951, [Entry 1 True, SHIFT 7394]), (24953, [Entry 1 True, SHIFT 8087]),
     (24955, [Entry 1 True, SHIFT 7409]), (24957, [Entry 1 True, SHIFT 3275]),
     (24959, [Entry 1 True, REDUCE sym_action_qualifier 3 0 0]),
     (24961, [Entry 1 False, SHIFT 941]), (24963, [Entry 1 False, SHIFT 9091]),
     (24965, [Entry 1 True, SHIFT 8583]), (24967, [Entry 1 True, SHIFT 8585]),
     (24969, [Entry 1 False, SHIFT 910]), (24971, [Entry 1 False, SHIFT 9259]),
     (24973, [Entry 1 True, SHIFT 2381]), (24975, [Entry 1 True, REDUCE sym_param_assign 1 0 0]),
     (24977, [Entry 1 True, SHIFT 8895]), (24979, [Entry 1 True, SHIFT 7868]),
     (24981, [Entry 1 True, SHIFT 7840]),
     (24983, [Entry 1 True, REDUCE aux_sym_action_association_repeat1 2 0 567]),
     (24985, [Entry 1 True, SHIFT 2948]),
     (24987, [Entry 1 True, REDUCE sym_relative_located_at 2 0 0]),
     (24989, [Entry 1 True, REDUCE sym_relative_direct_variable 3 0 44]),
     (24991, [Entry 1 True, REDUCE sym_conformand_dimension 1 0 0]),
     (24993, [Entry 1 True, SHIFT 9108]), (24995, [Entry 1 True, SHIFT 7850]),
     (24997, [Entry 1 True, REDUCE sym_element_at 5 0 1664]), (24999, [Entry 1 True, SHIFT 8148]),
     (25001, [Entry 1 True, REDUCE sym_method_prototype 4 0 210]),
     (25003, [Entry 1 True, REDUCE aux_sym_allow_pragma_repeat1 1 0 2]),
     (25005, [Entry 1 True, SHIFT 9948]), (25007, [Entry 1 True, SHIFT 8640]),
     (25009, [Entry 1 False, SHIFT 907]), (25011, [Entry 1 False, SHIFT 9592]),
     (25013, [Entry 1 True, REDUCE sym_action_time 1 0 567]),
     (25015, [Entry 1 True, REDUCE sym_extern_param_list 4 0 762]),
     (25017, [Entry 1 True, SHIFT 8525]), (25019, [Entry 1 True, SHIFT 7829]),
     (25021, [Entry 1 True, REDUCE sym_action_name 1 0 0]),
     (25023, [Entry 1 True, REDUCE sym_prog_conf_elem 1 0 0]),
     (25025, [Entry 1 True, REDUCE sym_method_prototype 3 0 5]),
     (25027, [Entry 1 True, REDUCE sym_action_qualifier 1 0 0]),
     (25029, [Entry 1 True, REDUCE sym_data_source 2 0 51]),
     (25031, [Entry 1 True, REDUCE aux_sym_array_conformand_repeat1 2 0 1187]),
     (25033, [Entry 1 True, SHIFT 2082]), (25035, [Entry 1 True, SHIFT 9054]),
     (25037, [Entry 1 True, SHIFT 7404]), (25039, [Entry 1 True, SHIFT 2074]),
     (25041, [Entry 1 True, REDUCE sym_prog_cnxn 3 0 0]),
     (25043, [Entry 1 True, REDUCE sym_method_prototype 5 0 384]),
     (25045, [Entry 1 True, REDUCE sym_func_body 1 0 0]), (25047, [Entry 1 False, SHIFT 913]),
     (25049, [Entry 1 False, SHIFT 9446]), (25051, [Entry 1 True, SHIFT 9846]),
     (25053, [Entry 1 True, SHIFT 1210]), (25055, [Entry 1 True, SHIFT 1213]),
     (25057, [Entry 1 True, SHIFT 10463]), (25059, [Entry 1 True, SHIFT 7881]),
     (25061, [Entry 1 False, SHIFT 916]), (25063, [Entry 1 False, SHIFT 10464]),
     (25065, [Entry 1 True, SHIFT 7837]), (25067, [Entry 1 True, SHIFT 8412]),
     (25069, [Entry 1 True, REDUCE sym_method_prototype 7 0 1042]),
     (25071, [Entry 1 False, SHIFT 948]), (25073, [Entry 1 False, SHIFT 10477]),
     (25075, [Entry 1 True, SHIFT 7892]), (25077, [Entry 1 True, SHIFT 10474]),
     (25079, [Entry 1 False, SHIFT 923]), (25081, [Entry 1 False, SHIFT 10480]),
     (25083, [Entry 1 True, REDUCE sym_method_prototype 4 0 26]),
     (25085, [Entry 1 False, SHIFT 928]), (25087, [Entry 1 False, SHIFT 10490]),
     (25089, [Entry 1 True, REDUCE sym_relative_direct_variable 3 0 45]),
     (25091, [Entry 1 True, REDUCE sym_method_prototype 6 0 661]),
     (25093, [Entry 1 False, SHIFT 932]), (25095, [Entry 1 False, SHIFT 10505]),
     (25097, [Entry 1 True, REDUCE sym_method_prototype 5 0 385]),
     (25099, [Entry 1 True, REDUCE aux_sym_extern_param_list_repeat1 1 0 440]),
     (25101, [Entry 1 True, REDUCE sym_fb_task 3 0 1481]), (25103, [Entry 1 False, SHIFT 937]),
     (25105, [Entry 1 False, SHIFT 10515]), (25107, [Entry 1 False, SHIFT 939]),
     (25109, [Entry 1 False, SHIFT 10517]), (25111, [Entry 1 True, SHIFT 8179]),
     (25113, [Entry 1 True, SHIFT 8731]),
     (25115, [Entry 1 True, REDUCE sym_global_var_spec 2 0 17]),
     (25117, [Entry 1 False, SHIFT 944]), (25119, [Entry 1 False, SHIFT 10526]),
     (25121, [Entry 1 True, REDUCE sym_ERR_single_after_interval 4 0 1047]),
     (25123, [Entry 1 True, SHIFT 7815]), (25125, [Entry 1 True, SHIFT 10267]),
     (25127, [Entry 1 True, SHIFT 7753]), (25129, [Entry 1 True, SHIFT 9053]),
     (25131, [Entry 1 True, SHIFT 2534]), (25133, [Entry 1 True, SHIFT 6093]),
     (25135, [Entry 1 True, SHIFT 2465]), (25137, [Entry 1 True, SHIFT 6094]),
     (25139, [Entry 1 True, SHIFT 4741]), (25141, [Entry 1 True, SHIFT 5627]),
     (25143, [Entry 1 True, SHIFT 7175]), (25145, [Entry 1 True, SHIFT 6096]),
     (25147, [Entry 1 True, SHIFT 7830]), (25149, [Entry 1 True, SHIFT 5768]),
     (25151, [Entry 1 True, SHIFT 5957]), (25153, [Entry 1 True, SHIFT 6100]),
     (25155, [Entry 1 True, SHIFT 5769]), (25157, [Entry 1 True, SHIFT 6101]),
     (25159, [Entry 1 True, SHIFT 3443]), (25161, [Entry 1 True, SHIFT 2475]),
     (25163, [Entry 1 True, SHIFT 6103]), (25165, [Entry 1 True, SHIFT 7579]),
     (25167, [Entry 1 True, SHIFT 9853]), (25169, [Entry 1 True, SHIFT 6557]),
     (25171, [Entry 1 True, SHIFT 6107]), (25173, [Entry 1 True, SHIFT 6801])]"

lemma ts_parse_actions_83_tiled: "tiled_from 24871 ts_parse_actions_83 \<and> after_runs 24871 ts_parse_actions_83 = 25175"
  unfolding ts_parse_actions_83_def by (simp cong: runs_weak)

lemma ts_parse_actions_83_ok: "list_all (\<lambda>(i, es). group_ok es) ts_parse_actions_83"
  unfolding ts_parse_actions_83_def
  by (simp add: group_ok_simps entry_action_ok_simps del: One_nat_def group_ok.simps cong: list_all_weak)

text \<open>Lines 493171 to 493320.\<close>

definition ts_parse_actions_84 :: "(nat \<times> TSParseActionEntry list) list" where
  "ts_parse_actions_84 =
    [(25175, [Entry 1 True, SHIFT 3543]), (25177, [Entry 1 True, SHIFT 5771]),
     (25179, [Entry 1 True, SHIFT 4743]), (25181, [Entry 1 True, SHIFT 6114]),
     (25183, [Entry 1 True, SHIFT 3445]), (25185, [Entry 1 True, SHIFT 6115]),
     (25187, [Entry 1 True, SHIFT 5664]), (25189, [Entry 1 True, SHIFT 4744]),
     (25191, [Entry 1 True, SHIFT 6805]), (25193, [Entry 1 True, SHIFT 5959]),
     (25195, [Entry 1 True, SHIFT 6116]), (25197, [Entry 1 True, SHIFT 4746]),
     (25199, [Entry 1 True, SHIFT 3449]), (25201, [Entry 1 True, SHIFT 2498]),
     (25203, [Entry 1 True, SHIFT 6117]), (25205, [Entry 1 True, SHIFT 6812]),
     (25207, [Entry 1 True, SHIFT 4747]), (25209, [Entry 1 True, SHIFT 6119]),
     (25211, [Entry 1 True, SHIFT 4749]), (25213, [Entry 1 True, SHIFT 3421]),
     (25215, [Entry 1 True, SHIFT 6814]), (25217, [Entry 1 True, SHIFT 6123]),
     (25219, [Entry 1 True, SHIFT 5695]), (25221, [Entry 1 True, SHIFT 4753]),
     (25223, [Entry 1 True, SHIFT 5775]), (25225, [Entry 1 True, SHIFT 6559]),
     (25227, [Entry 1 True, SHIFT 3466]), (25229, [Entry 1 True, SHIFT 4754]),
     (25231, [Entry 1 True, SHIFT 6818]), (25233, [Entry 1 True, SHIFT 5776]),
     (25235, [Entry 1 True, SHIFT 6140]), (25237, [Entry 1 True, SHIFT 3467]),
     (25239, [Entry 1 True, SHIFT 2503]), (25241, [Entry 1 True, SHIFT 6141]),
     (25243, [Entry 1 True, SHIFT 4755]), (25245, [Entry 1 True, SHIFT 4517]),
     (25247, [Entry 1 True, SHIFT 5651]), (25249, [Entry 1 True, SHIFT 6142]),
     (25251, [Entry 1 True, SHIFT 3468]), (25253, [Entry 1 True, SHIFT 4756]),
     (25255, [Entry 1 True, SHIFT 5858]), (25257, [Entry 1 True, SHIFT 6144]),
     (25259, [Entry 1 True, SHIFT 4758]), (25261, [Entry 1 True, SHIFT 6145]),
     (25263, [Entry 1 True, SHIFT 3464]), (25265, [Entry 1 True, SHIFT 4523]),
     (25267, [Entry 1 True, SHIFT 3470]), (25269, [Entry 1 True, SHIFT 6146]),
     (25271, [Entry 1 True, SHIFT 4762]), (25273, [Entry 1 True, SHIFT 3566]),
     (25275, [Entry 1 True, SHIFT 3471]), (25277, [Entry 1 True, SHIFT 6148]),
     (25279, [Entry 1 True, SHIFT 6149]), (25281, [Entry 1 True, SHIFT 6835]),
     (25283, [Entry 1 True, SHIFT 4323]), (25285, [Entry 1 True, SHIFT 6836]),
     (25287, [Entry 1 True, SHIFT 6151]), (25289, [Entry 1 True, SHIFT 3473]),
     (25291, [Entry 1 True, SHIFT 3479]), (25293, [Entry 1 True, SHIFT 4769]),
     (25295, [Entry 1 True, SHIFT 6155]), (25297, [Entry 1 True, SHIFT 2520]),
     (25299, [Entry 1 True, SHIFT 6156]), (25301, [Entry 1 True, SHIFT 5777]),
     (25303, [Entry 1 True, SHIFT 4770]), (25305, [Entry 1 True, SHIFT 6837]),
     (25307, [Entry 1 True, SHIFT 6563]), (25309, [Entry 1 True, SHIFT 6157]),
     (25311, [Entry 1 True, SHIFT 4772]), (25313, [Entry 1 True, SHIFT 6000]),
     (25315, [Entry 1 True, SHIFT 3487]), (25317, [Entry 1 True, SHIFT 6158]),
     (25319, [Entry 1 True, SHIFT 3494]), (25321, [Entry 1 True, SHIFT 4773]),
     (25323, [Entry 1 True, SHIFT 6838]), (25325, [Entry 1 True, SHIFT 6160]),
     (25327, [Entry 1 True, SHIFT 5652]), (25329, [Entry 1 True, SHIFT 6161]),
     (25331, [Entry 1 True, SHIFT 4774]), (25333, [Entry 1 True, SHIFT 3489]),
     (25335, [Entry 1 True, SHIFT 5779]), (25337, [Entry 1 True, SHIFT 6162]),
     (25339, [Entry 1 True, SHIFT 4776]), (25341, [Entry 1 True, SHIFT 3490]),
     (25343, [Entry 1 True, SHIFT 3505]), (25345, [Entry 1 True, SHIFT 6164]),
     (25347, [Entry 1 True, SHIFT 6840]), (25349, [Entry 1 True, SHIFT 6165]),
     (25351, [Entry 1 True, SHIFT 6075]), (25353, [Entry 1 True, SHIFT 3492]),
     (25355, [Entry 1 True, SHIFT 4777]), (25357, [Entry 1 True, SHIFT 6167]),
     (25359, [Entry 1 True, SHIFT 6841]), (25361, [Entry 1 True, SHIFT 5780]),
     (25363, [Entry 1 True, SHIFT 2525]), (25365, [Entry 1 True, SHIFT 6171]),
     (25367, [Entry 1 True, SHIFT 4778]), (25369, [Entry 1 True, SHIFT 6172]),
     (25371, [Entry 1 True, SHIFT 3496]), (25373, [Entry 1 True, SHIFT 4780]),
     (25375, [Entry 1 True, SHIFT 5674]), (25377, [Entry 1 True, SHIFT 3497]),
     (25379, [Entry 1 True, SHIFT 6050]), (25381, [Entry 1 True, SHIFT 4784]),
     (25383, [Entry 1 True, SHIFT 6173]), (25385, [Entry 1 True, SHIFT 5782]),
     (25387, [Entry 1 True, SHIFT 3499]), (25389, [Entry 1 True, SHIFT 3582]),
     (25391, [Entry 1 True, SHIFT 4418]), (25393, [Entry 1 True, SHIFT 4113]),
     (25395, [Entry 1 True, SHIFT 6174]), (25397, [Entry 1 True, SHIFT 3503]),
     (25399, [Entry 1 True, SHIFT 5786]), (25401, [Entry 1 True, SHIFT 4791]),
     (25403, [Entry 1 True, SHIFT 6068]), (25405, [Entry 1 True, SHIFT 6175]),
     (25407, [Entry 1 True, SHIFT 5787]), (25409, [Entry 1 True, SHIFT 4792]),
     (25411, [Entry 1 True, SHIFT 6105]), (25413, [Entry 1 True, SHIFT 6176]),
     (25415, [Entry 1 True, SHIFT 3510]), (25417, [Entry 1 True, SHIFT 4794]),
     (25419, [Entry 1 True, SHIFT 5654]), (25421, [Entry 1 True, SHIFT 6178]),
     (25423, [Entry 1 True, SHIFT 3511]), (25425, [Entry 1 True, SHIFT 6179]),
     (25427, [Entry 1 True, SHIFT 5789]), (25429, [Entry 1 True, SHIFT 4795]),
     (25431, [Entry 1 True, SHIFT 4419]), (25433, [Entry 1 True, SHIFT 6606]),
     (25435, [Entry 1 True, SHIFT 6180]), (25437, [Entry 1 True, SHIFT 4796]),
     (25439, [Entry 1 True, SHIFT 3512]), (25441, [Entry 1 True, SHIFT 6181]),
     (25443, [Entry 1 True, SHIFT 4798]), (25445, [Entry 1 True, SHIFT 8058]),
     (25447, [Entry 1 True, SHIFT 6125]), (25449, [Entry 1 True, SHIFT 6183]),
     (25451, [Entry 1 True, SHIFT 6184]), (25453, [Entry 1 True, SHIFT 3549]),
     (25455, [Entry 1 True, SHIFT 3514]), (25457, [Entry 1 True, SHIFT 5793]),
     (25459, [Entry 1 True, SHIFT 6185]), (25461, [Entry 1 True, SHIFT 3515]),
     (25463, [Entry 1 True, SHIFT 4327]), (25465, [Entry 1 True, SHIFT 4805]),
     (25467, [Entry 1 True, SHIFT 6187]), (25469, [Entry 1 True, SHIFT 4420]),
     (25471, [Entry 1 True, SHIFT 6188]), (25473, [Entry 1 True, SHIFT 9943])]"

lemma ts_parse_actions_84_tiled: "tiled_from 25175 ts_parse_actions_84 \<and> after_runs 25175 ts_parse_actions_84 = 25475"
  unfolding ts_parse_actions_84_def by (simp cong: runs_weak)

lemma ts_parse_actions_84_ok: "list_all (\<lambda>(i, es). group_ok es) ts_parse_actions_84"
  unfolding ts_parse_actions_84_def
  by (simp add: group_ok_simps entry_action_ok_simps del: One_nat_def group_ok.simps cong: list_all_weak)

text \<open>Lines 493321 to 493470.\<close>

definition ts_parse_actions_85 :: "(nat \<times> TSParseActionEntry list) list" where
  "ts_parse_actions_85 =
    [(25475, [Entry 1 True, SHIFT 3517]), (25477, [Entry 1 True, SHIFT 4810]),
     (25479, [Entry 1 True, SHIFT 6190]), (25481, [Entry 1 True, SHIFT 6609]),
     (25483, [Entry 1 True, SHIFT 4812]), (25485, [Entry 1 True, SHIFT 899]),
     (25487, [Entry 1 True, SHIFT 6194]), (25489, [Entry 1 True, SHIFT 5800]),
     (25491, [Entry 1 True, SHIFT 6195]), (25493, [Entry 1 True, SHIFT 3521]),
     (25495, [Entry 1 True, SHIFT 4816]), (25497, [Entry 1 True, SHIFT 3522]),
     (25499, [Entry 1 True, SHIFT 5801]), (25501, [Entry 1 True, SHIFT 4817]),
     (25503, [Entry 1 True, SHIFT 6196]), (25505, [Entry 1 True, SHIFT 4422]),
     (25507, [Entry 1 True, SHIFT 4819]), (25509, [Entry 1 True, SHIFT 3524]),
     (25511, [Entry 1 True, SHIFT 9953]), (25513, [Entry 1 True, SHIFT 7390]),
     (25515, [Entry 1 True, SHIFT 4823]), (25517, [Entry 1 True, SHIFT 6197]),
     (25519, [Entry 1 True, SHIFT 4423]), (25521, [Entry 1 True, SHIFT 3528]),
     (25523, [Entry 1 True, SHIFT 3139]), (25525, [Entry 1 True, SHIFT 4824]),
     (25527, [Entry 1 True, SHIFT 6198]), (25529, [Entry 1 True, SHIFT 10274]),
     (25531, [Entry 1 True, SHIFT 3286]), (25533, [Entry 1 True, SHIFT 5802]),
     (25535, [Entry 1 True, SHIFT 6199]), (25537, [Entry 1 True, SHIFT 3535]),
     (25539, [Entry 1 True, SHIFT 4825]), (25541, [Entry 1 True, SHIFT 5658]),
     (25543, [Entry 1 True, SHIFT 6201]), (25545, [Entry 1 True, SHIFT 3536]),
     (25547, [Entry 1 True, SHIFT 6202]), (25549, [Entry 1 True, SHIFT 6110]),
     (25551, [Entry 1 True, SHIFT 4826]), (25553, [Entry 1 True, SHIFT 4737]),
     (25555, [Entry 1 True, SHIFT 6203]), (25557, [Entry 1 True, SHIFT 3630]),
     (25559, [Entry 1 True, SHIFT 4827]), (25561, [Entry 1 True, SHIFT 3538]),
     (25563, [Entry 1 True, SHIFT 6205]), (25565, [Entry 1 True, SHIFT 2483]),
     (25567, [Entry 1 True, SHIFT 6206]), (25569, [Entry 1 True, SHIFT 4829]),
     (25571, [Entry 1 True, SHIFT 4424]), (25573, [Entry 1 True, SHIFT 2484]),
     (25575, [Entry 1 True, SHIFT 6208]), (25577, [Entry 1 True, SHIFT 5803]),
     (25579, [Entry 1 True, SHIFT 7465]), (25581, [Entry 1 True, SHIFT 3654]),
     (25583, [Entry 1 True, SHIFT 6212]), (25585, [Entry 1 True, SHIFT 4830]),
     (25587, [Entry 1 True, SHIFT 6213]), (25589, [Entry 1 True, SHIFT 3552]),
     (25591, [Entry 1 True, SHIFT 2486]), (25593, [Entry 1 True, SHIFT 4831]),
     (25595, [Entry 1 True, SHIFT 6625]), (25597, [Entry 1 True, SHIFT 4334]),
     (25599, [Entry 1 True, SHIFT 6214]), (25601, [Entry 1 True, SHIFT 4833]),
     (25603, [Entry 1 True, SHIFT 3554]), (25605, [Entry 1 True, SHIFT 4766]),
     (25607, [Entry 1 True, SHIFT 6216]), (25609, [Entry 1 True, SHIFT 3555]),
     (25611, [Entry 1 True, SHIFT 6217]), (25613, [Entry 1 True, SHIFT 4834]),
     (25615, [Entry 1 True, SHIFT 3670]), (25617, [Entry 1 True, SHIFT 4836]),
     (25619, [Entry 1 True, SHIFT 6219]), (25621, [Entry 1 True, SHIFT 2488]),
     (25623, [Entry 1 True, SHIFT 5804]), (25625, [Entry 1 True, SHIFT 3557]),
     (25627, [Entry 1 True, SHIFT 6223]), (25629, [Entry 1 True, SHIFT 4840]),
     (25631, [Entry 1 True, SHIFT 6224]), (25633, [Entry 1 True, SHIFT 4704]),
     (25635, [Entry 1 True, SHIFT 2489]), (25637, [Entry 1 True, SHIFT 6226]),
     (25639, [Entry 1 True, SHIFT 4426]), (25641, [Entry 1 True, SHIFT 4841]),
     (25643, [Entry 1 True, SHIFT 3561]), (25645, [Entry 1 True, SHIFT 6230]),
     (25647, [Entry 1 True, SHIFT 6128]), (25649, [Entry 1 True, SHIFT 4427]),
     (25651, [Entry 1 True, SHIFT 3568]), (25653, [Entry 1 True, SHIFT 4842]),
     (25655, [Entry 1 True, SHIFT 6237]), (25657, [Entry 1 True, SHIFT 914]),
     (25659, [Entry 1 True, SHIFT 6238]), (25661, [Entry 1 True, SHIFT 2493]),
     (25663, [Entry 1 True, SHIFT 3570]), (25665, [Entry 1 True, SHIFT 5806]),
     (25667, [Entry 1 True, SHIFT 4843]), (25669, [Entry 1 True, SHIFT 6239]),
     (25671, [Entry 1 True, SHIFT 4808]), (25673, [Entry 1 True, SHIFT 5659]),
     (25675, [Entry 1 True, SHIFT 4844]), (25677, [Entry 1 True, SHIFT 3574]),
     (25679, [Entry 1 True, SHIFT 6240]), (25681, [Entry 1 True, SHIFT 2495]),
     (25683, [Entry 1 True, SHIFT 4846]), (25685, [Entry 1 True, SHIFT 6668]),
     (25687, [Entry 1 True, SHIFT 6241]), (25689, [Entry 1 True, SHIFT 2496]),
     (25691, [Entry 1 True, SHIFT 3754]), (25693, [Entry 1 True, SHIFT 4847]),
     (25695, [Entry 1 True, SHIFT 6243]), (25697, [Entry 1 True, SHIFT 4878]),
     (25699, [Entry 1 True, SHIFT 6244]), (25701, [Entry 1 True, SHIFT 4849]),
     (25703, [Entry 1 True, SHIFT 5807]), (25705, [Entry 1 True, SHIFT 2989]),
     (25707, [Entry 1 True, SHIFT 3755]), (25709, [Entry 1 True, SHIFT 4853]),
     (25711, [Entry 1 True, SHIFT 6245]), (25713, [Entry 1 True, SHIFT 3591]),
     (25715, [Entry 1 True, SHIFT 6132]), (25717, [Entry 1 True, SHIFT 3592]),
     (25719, [Entry 1 True, SHIFT 4854]), (25721, [Entry 1 True, SHIFT 6246]),
     (25723, [Entry 1 True, SHIFT 7460]), (25725, [Entry 1 True, SHIFT 4914]),
     (25727, [Entry 1 True, SHIFT 3141]), (25729, [Entry 1 True, SHIFT 6247]),
     (25731, [Entry 1 True, SHIFT 3758]), (25733, [Entry 1 True, SHIFT 4855]),
     (25735, [Entry 1 True, SHIFT 3593]), (25737, [Entry 1 True, SHIFT 6249]),
     (25739, [Entry 1 True, SHIFT 5692]), (25741, [Entry 1 True, SHIFT 6250]),
     (25743, [Entry 1 True, SHIFT 3759]), (25745, [Entry 1 True, SHIFT 4856]),
     (25747, [Entry 1 True, SHIFT 3143]), (25749, [Entry 1 True, SHIFT 4858]),
     (25751, [Entry 1 True, SHIFT 3594]), (25753, [Entry 1 True, SHIFT 4429]),
     (25755, [Entry 1 True, SHIFT 10530]), (25757, [Entry 1 True, SHIFT 4862]),
     (25759, [Entry 1 True, SHIFT 6251]), (25761, [Entry 1 True, SHIFT 6643]),
     (25763, [Entry 1 True, SHIFT 3596]), (25765, [Entry 1 True, SHIFT 5808]),
     (25767, [Entry 1 True, SHIFT 6221]), (25769, [Entry 1 True, SHIFT 6252]),
     (25771, [Entry 1 True, SHIFT 3761]), (25773, [Entry 1 True, SHIFT 3600])]"

lemma ts_parse_actions_85_tiled: "tiled_from 25475 ts_parse_actions_85 \<and> after_runs 25475 ts_parse_actions_85 = 25775"
  unfolding ts_parse_actions_85_def by (simp cong: runs_weak)

lemma ts_parse_actions_85_ok: "list_all (\<lambda>(i, es). group_ok es) ts_parse_actions_85"
  unfolding ts_parse_actions_85_def
  by (simp add: group_ok_simps entry_action_ok_simps del: One_nat_def group_ok.simps cong: list_all_weak)

text \<open>Lines 493471 to 493620.\<close>

definition ts_parse_actions_86 :: "(nat \<times> TSParseActionEntry list) list" where
  "ts_parse_actions_86 =
    [(25775, [Entry 1 True, SHIFT 3144]), (25777, [Entry 1 True, SHIFT 4869]),
     (25779, [Entry 1 True, SHIFT 6253]), (25781, [Entry 1 True, SHIFT 4433]),
     (25783, [Entry 1 True, SHIFT 6138]), (25785, [Entry 1 True, SHIFT 4870]),
     (25787, [Entry 1 True, SHIFT 6254]), (25789, [Entry 1 True, SHIFT 4434]),
     (25791, [Entry 1 True, SHIFT 6731]), (25793, [Entry 1 True, SHIFT 4872]),
     (25795, [Entry 1 True, SHIFT 6256]), (25797, [Entry 1 True, SHIFT 3773]),
     (25799, [Entry 1 True, SHIFT 6257]), (25801, [Entry 1 True, SHIFT 4998]),
     (25803, [Entry 1 True, SHIFT 2500]), (25805, [Entry 1 True, SHIFT 4873]),
     (25807, [Entry 1 True, SHIFT 3617]), (25809, [Entry 1 True, SHIFT 3780]),
     (25811, [Entry 1 True, SHIFT 4874]), (25813, [Entry 1 True, ACCEPT_INPUT]),
     (25815, [Entry 1 True, SHIFT 6258]), (25817, [Entry 1 True, SHIFT 3618]),
     (25819, [Entry 1 True, SHIFT 4876]), (25821, [Entry 1 True, SHIFT 5809]),
     (25823, [Entry 1 True, SHIFT 4336]), (25825, [Entry 1 True, SHIFT 6259]),
     (25827, [Entry 1 True, SHIFT 6645]), (25829, [Entry 1 True, SHIFT 4436]),
     (25831, [Entry 1 True, SHIFT 5810]), (25833, [Entry 1 True, SHIFT 6260]),
     (25835, [Entry 1 True, SHIFT 5660]), (25837, [Entry 1 True, SHIFT 6648]),
     (25839, [Entry 1 True, SHIFT 5628]), (25841, [Entry 1 True, SHIFT 6262]),
     (25843, [Entry 1 True, SHIFT 5812]), (25845, [Entry 1 True, SHIFT 6263]),
     (25847, [Entry 1 True, SHIFT 4440]), (25849, [Entry 1 True, SHIFT 5813]),
     (25851, [Entry 1 True, SHIFT 6153]), (25853, [Entry 1 True, SHIFT 1220]),
     (25855, [Entry 1 True, SHIFT 6264]), (25857, [Entry 1 True, SHIFT 10383]),
     (25859, [Entry 1 True, SHIFT 1224]), (25861, [Entry 1 True, SHIFT 10389]),
     (25863, [Entry 1 True, SHIFT 6265]), (25865, [Entry 1 True, SHIFT 10392]),
     (25867, [Entry 1 True, SHIFT 7500]), (25869, [Entry 1 True, SHIFT 1223]),
     (25871, [Entry 1 True, SHIFT 6267]), (25873, [Entry 1 True, SHIFT 1219]),
     (25875, [Entry 1 True, SHIFT 6268]), (25877, [Entry 1 True, SHIFT 6651]),
     (25879, [Entry 1 True, SHIFT 7408]), (25881, [Entry 1 True, SHIFT 6269]),
     (25883, [Entry 1 True, SHIFT 2505]), (25885, [Entry 1 True, SHIFT 3619]),
     (25887, [Entry 1 True, SHIFT 6192]), (25889, [Entry 1 True, SHIFT 6271]),
     (25891, [Entry 1 True, SHIFT 4881]), (25893, [Entry 1 True, SHIFT 6272]),
     (25895, [Entry 1 True, SHIFT 5814]), (25897, [Entry 1 True, SHIFT 4447]),
     (25899, [Entry 1 True, SHIFT 3621]), (25901, [Entry 1 True, SHIFT 6274]),
     (25903, [Entry 1 True, SHIFT 4882]), (25905, [Entry 1 True, SHIFT 2507]),
     (25907, [Entry 1 True, SHIFT 3622]), (25909, [Entry 1 True, SHIFT 6278]),
     (25911, [Entry 1 True, SHIFT 4801]), (25913, [Entry 1 True, SHIFT 6279]),
     (25915, [Entry 1 True, SHIFT 4884]), (25917, [Entry 1 True, SHIFT 2508]),
     (25919, [Entry 1 True, SHIFT 4885]), (25921, [Entry 1 True, SHIFT 4448]),
     (25923, [Entry 1 True, SHIFT 3623]), (25925, [Entry 1 True, SHIFT 5816]),
     (25927, [Entry 1 True, SHIFT 6280]), (25929, [Entry 1 True, SHIFT 4886]),
     (25931, [Entry 1 True, SHIFT 2640]), (25933, [Entry 1 True, SHIFT 4287]),
     (25935, [Entry 1 True, SHIFT 3625]), (25937, [Entry 1 True, SHIFT 4888]),
     (25939, [Entry 1 True, SHIFT 5817]), (25941, [Entry 1 True, SHIFT 6281]),
     (25943, [Entry 1 True, SHIFT 4889]), (25945, [Entry 1 True, SHIFT 3626]),
     (25947, [Entry 1 True, SHIFT 2512]), (25949, [Entry 1 True, SHIFT 2354]),
     (25951, [Entry 1 True, SHIFT 4891]), (25953, [Entry 1 True, SHIFT 6662]),
     (25955, [Entry 1 True, SHIFT 3628]), (25957, [Entry 1 True, SHIFT 6282]),
     (25959, [Entry 1 True, SHIFT 5662]), (25961, [Entry 1 True, SHIFT 4895]),
     (25963, [Entry 1 True, SHIFT 2515]), (25965, [Entry 1 True, SHIFT 4896]),
     (25967, [Entry 1 True, SHIFT 6232]), (25969, [Entry 1 True, SHIFT 3632]),
     (25971, [Entry 1 True, SHIFT 6283]), (25973, [Entry 1 True, SHIFT 5819]),
     (25975, [Entry 1 True, SHIFT 4897]), (25977, [Entry 1 True, SHIFT 3633]),
     (25979, [Entry 1 True, SHIFT 4449]), (25981, [Entry 1 True, SHIFT 8049]),
     (25983, [Entry 1 True, SHIFT 6284]), (25985, [Entry 1 True, SHIFT 4899]),
     (25987, [Entry 1 True, SHIFT 2518]), (25989, [Entry 1 True, SHIFT 6676]),
     (25991, [Entry 1 True, SHIFT 4340]), (25993, [Entry 1 True, SHIFT 6285]),
     (25995, [Entry 1 True, SHIFT 4903]), (25997, [Entry 1 True, SHIFT 6957]),
     (25999, [Entry 1 True, SHIFT 3634]), (26001, [Entry 1 True, SHIFT 6286]),
     (26003, [Entry 1 True, REDUCE sym_struct_elem_decl_attributes 2 0 237]),
     (26005, [Entry 1 True, SHIFT 5823]), (26007, [Entry 1 True, SHIFT 5277]),
     (26009, [Entry 1 True, SHIFT 6288]), (26011, [Entry 1 True, SHIFT 6958]),
     (26013, [Entry 1 True, SHIFT 6289]), (26015, [Entry 1 True, SHIFT 3635]),
     (26017, [Entry 1 True, SHIFT 5824]), (26019, [Entry 1 True, SHIFT 4920]),
     (26021, [Entry 1 True, SHIFT 4450]), (26023, [Entry 1 True, SHIFT 6679]),
     (26025, [Entry 1 True, SHIFT 7893]), (26027, [Entry 1 True, SHIFT 5826]),
     (26029, [Entry 1 True, SHIFT 4921]), (26031, [Entry 1 True, SHIFT 3636]),
     (26033, [Entry 1 True, SHIFT 6960]), (26035, [Entry 1 True, SHIFT 6400]),
     (26037, [Entry 1 True, SHIFT 6290]), (26039, [Entry 1 True, SHIFT 4922]),
     (26041, [Entry 1 True, SHIFT 6961]), (26043, [Entry 1 True, SHIFT 3638]),
     (26045, [Entry 1 True, SHIFT 6334]), (26047, [Entry 1 True, SHIFT 4924]),
     (26049, [Entry 1 True, SHIFT 6291]), (26051, [Entry 1 True, SHIFT 3639]),
     (26053, [Entry 1 True, SHIFT 4925]), (26055, [Entry 1 True, SHIFT 5194]),
     (26057, [Entry 1 True, SHIFT 4452]), (26059, [Entry 1 True, SHIFT 6292]),
     (26061, [Entry 1 True, SHIFT 6963]), (26063, [Entry 1 True, SHIFT 4927]),
     (26065, [Entry 1 True, SHIFT 5830]), (26067, [Entry 1 True, SHIFT 6293]),
     (26069, [Entry 1 True, SHIFT 3640]), (26071, [Entry 1 True, SHIFT 10060]),
     (26073, [Entry 1 True, SHIFT 6294])]"

lemma ts_parse_actions_86_tiled: "tiled_from 25775 ts_parse_actions_86 \<and> after_runs 25775 ts_parse_actions_86 = 26075"
  unfolding ts_parse_actions_86_def by (simp cong: runs_weak)

lemma ts_parse_actions_86_ok: "list_all (\<lambda>(i, es). group_ok es) ts_parse_actions_86"
  unfolding ts_parse_actions_86_def
  by (simp add: group_ok_simps entry_action_ok_simps del: One_nat_def group_ok.simps cong: list_all_weak)

text \<open>Lines 493621 to 493770.\<close>

definition ts_parse_actions_87 :: "(nat \<times> TSParseActionEntry list) list" where
  "ts_parse_actions_87 =
    [(26075, [Entry 1 True, SHIFT 6691]), (26077, [Entry 1 True, SHIFT 6967]),
     (26079, [Entry 1 True, SHIFT 6296]), (26081, [Entry 1 True, SHIFT 3642]),
     (26083, [Entry 1 True, SHIFT 4941]), (26085, [Entry 1 True, SHIFT 3643]),
     (26087, [Entry 1 True, SHIFT 6968]), (26089, [Entry 1 True, SHIFT 4943]),
     (26091, [Entry 1 True, SHIFT 4456]), (26093, [Entry 1 True, SHIFT 4944]),
     (26095, [Entry 1 True, SHIFT 5837]), (26097, [Entry 1 True, SHIFT 6297]),
     (26099, [Entry 1 True, SHIFT 3645]), (26101, [Entry 1 True, SHIFT 5838]),
     (26103, [Entry 1 True, SHIFT 5666]), (26105, [Entry 1 True, SHIFT 6352]),
     (26107, [Entry 1 True, SHIFT 5610]), (26109, [Entry 1 True, SHIFT 6466]),
     (26111, [Entry 1 True, SHIFT 5839]), (26113, [Entry 1 True, SHIFT 6469]),
     (26115, [Entry 1 True, SHIFT 6970]), (26117, [Entry 1 True, SHIFT 4946]),
     (26119, [Entry 1 True, SHIFT 7870]), (26121, [Entry 1 True, SHIFT 6298]),
     (26123, [Entry 1 True, SHIFT 3649]), (26125, [Entry 1 True, SHIFT 4950]),
     (26127, [Entry 1 True, SHIFT 3810]), (26129, [Entry 1 True, SHIFT 4951]),
     (26131, [Entry 1 True, SHIFT 6299]), (26133, [Entry 1 True, SHIFT 3650]),
     (26135, [Entry 1 True, SHIFT 6974]), (26137, [Entry 1 True, SHIFT 4953]),
     (26139, [Entry 1 True, SHIFT 6300]), (26141, [Entry 1 True, SHIFT 6729]),
     (26143, [Entry 1 True, SHIFT 3652]), (26145, [Entry 1 True, SHIFT 5840]),
     (26147, [Entry 1 True, SHIFT 6302]), (26149, [Entry 1 True, SHIFT 4957]),
     (26151, [Entry 1 True, SHIFT 6303]), (26153, [Entry 1 True, SHIFT 8403]),
     (26155, [Entry 1 True, SHIFT 4473]), (26157, [Entry 1 True, SHIFT 3656]),
     (26159, [Entry 1 True, SHIFT 6985]), (26161, [Entry 1 True, SHIFT 6304]),
     (26163, [Entry 1 True, SHIFT 4964]), (26165, [Entry 1 True, SHIFT 4965]),
     (26167, [Entry 1 True, SHIFT 6305]), (26169, [Entry 1 True, SHIFT 6988]),
     (26171, [Entry 1 True, SHIFT 3099]), (26173, [Entry 1 True, SHIFT 3663]),
     (26175, [Entry 1 True, SHIFT 6307]), (26177, [Entry 1 True, SHIFT 3969]),
     (26179, [Entry 1 True, SHIFT 6308]), (26181, [Entry 1 True, SHIFT 4966]),
     (26183, [Entry 1 True, SHIFT 3664]), (26185, [Entry 1 True, SHIFT 5295]),
     (26187, [Entry 1 True, SHIFT 6309]), (26189, [Entry 1 True, SHIFT 6990]),
     (26191, [Entry 1 True, SHIFT 4968]), (26193, [Entry 1 True, SHIFT 6730]),
     (26195, [Entry 1 True, SHIFT 6311]), (26197, [Entry 1 True, SHIFT 4969]),
     (26199, [Entry 1 True, SHIFT 6312]), (26201, [Entry 1 True, SHIFT 3146]),
     (26203, [Entry 1 True, SHIFT 3665]), (26205, [Entry 1 True, SHIFT 5842]),
     (26207, [Entry 1 True, SHIFT 6314]), (26209, [Entry 1 True, SHIFT 4971]),
     (26211, [Entry 1 True, SHIFT 4474]), (26213, [Entry 1 True, SHIFT 6318]),
     (26215, [Entry 1 True, SHIFT 3666]), (26217, [Entry 1 True, SHIFT 6319]),
     (26219, [Entry 1 True, SHIFT 4975]), (26221, [Entry 1 True, SHIFT 5573]),
     (26223, [Entry 1 True, SHIFT 4976]), (26225, [Entry 1 True, SHIFT 7009]),
     (26227, [Entry 1 True, SHIFT 5846]), (26229, [Entry 1 True, SHIFT 4978]),
     (26231, [Entry 1 True, SHIFT 6320]), (26233, [Entry 1 True, SHIFT 3668]),
     (26235, [Entry 1 True, SHIFT 4475]), (26237, [Entry 1 True, SHIFT 4982]),
     (26239, [Entry 1 True, SHIFT 7011]), (26241, [Entry 1 True, SHIFT 3672]),
     (26243, [Entry 1 True, SHIFT 6321]), (26245, [Entry 1 True, SHIFT 2335]),
     (26247, [Entry 1 True, SHIFT 7012]), (26249, [Entry 1 True, SHIFT 4989]),
     (26251, [Entry 1 True, SHIFT 6732]), (26253, [Entry 1 True, SHIFT 6322]),
     (26255, [Entry 1 True, SHIFT 4990]), (26257, [Entry 1 True, SHIFT 5383]),
     (26259, [Entry 1 True, SHIFT 3702]), (26261, [Entry 1 True, SHIFT 6323]),
     (26263, [Entry 1 True, SHIFT 7015]), (26265, [Entry 1 True, SHIFT 4992]),
     (26267, [Entry 1 True, SHIFT 5629]), (26269, [Entry 1 True, SHIFT 6325]),
     (26271, [Entry 1 True, SHIFT 4477]), (26273, [Entry 1 True, SHIFT 6326]),
     (26275, [Entry 1 True, SHIFT 3689]), (26277, [Entry 1 True, SHIFT 7124]),
     (26279, [Entry 1 True, SHIFT 7019]), (26281, [Entry 1 True, SHIFT 6327]),
     (26283, [Entry 1 True, SHIFT 3690]), (26285, [Entry 1 True, SHIFT 5006]),
     (26287, [Entry 1 True, SHIFT 6755]), (26289, [Entry 1 True, SHIFT 6329]),
     (26291, [Entry 1 True, SHIFT 3730]), (26293, [Entry 1 True, SHIFT 6330]),
     (26295, [Entry 1 True, SHIFT 7027]), (26297, [Entry 1 True, SHIFT 5008]),
     (26299, [Entry 1 True, SHIFT 3691]), (26301, [Entry 1 True, SHIFT 6332]),
     (26303, [Entry 1 True, SHIFT 5009]), (26305, [Entry 1 True, SHIFT 5795]),
     (26307, [Entry 1 True, SHIFT 4478]), (26309, [Entry 1 True, SHIFT 6336]),
     (26311, [Entry 1 True, SHIFT 7029]), (26313, [Entry 1 True, SHIFT 6337]),
     (26315, [Entry 1 True, SHIFT 5011]), (26317, [Entry 1 True, SHIFT 3693]),
     (26319, [Entry 1 True, SHIFT 5863]), (26321, [Entry 1 True, SHIFT 3694]),
     (26323, [Entry 1 True, SHIFT 5015]), (26325, [Entry 1 True, SHIFT 6338]),
     (26327, [Entry 1 True, SHIFT 6733]), (26329, [Entry 1 True, SHIFT 5832]),
     (26331, [Entry 1 True, SHIFT 5022]), (26333, [Entry 1 True, SHIFT 6340]),
     (26335, [Entry 1 True, SHIFT 7033]), (26337, [Entry 1 True, SHIFT 6341]),
     (26339, [Entry 1 True, SHIFT 3695]), (26341, [Entry 1 True, SHIFT 5024]),
     (26343, [Entry 1 True, SHIFT 6476]), (26345, [Entry 1 True, SHIFT 6343]),
     (26347, [Entry 1 True, SHIFT 2464]), (26349, [Entry 1 True, SHIFT 5864]),
     (26351, [Entry 1 True, SHIFT 5028]), (26353, [Entry 1 True, SHIFT 6347]),
     (26355, [Entry 1 True, SHIFT 3697]), (26357, [Entry 1 True, SHIFT 6348]),
     (26359, [Entry 1 True, SHIFT 4357]), (26361, [Entry 1 True, SHIFT 3698]),
     (26363, [Entry 1 True, SHIFT 6350]), (26365, [Entry 1 True, SHIFT 4479]),
     (26367, [Entry 1 True, SHIFT 2359]), (26369, [Entry 1 True, SHIFT 2433]),
     (26371, [Entry 1 True, SHIFT 6354]), (26373, [Entry 1 True, SHIFT 3700])]"

lemma ts_parse_actions_87_tiled: "tiled_from 26075 ts_parse_actions_87 \<and> after_runs 26075 ts_parse_actions_87 = 26375"
  unfolding ts_parse_actions_87_def by (simp cong: runs_weak)

lemma ts_parse_actions_87_ok: "list_all (\<lambda>(i, es). group_ok es) ts_parse_actions_87"
  unfolding ts_parse_actions_87_def
  by (simp add: group_ok_simps entry_action_ok_simps del: One_nat_def group_ok.simps cong: list_all_weak)

text \<open>Lines 493771 to 493920.\<close>

definition ts_parse_actions_88 :: "(nat \<times> TSParseActionEntry list) list" where
  "ts_parse_actions_88 =
    [(26375, [Entry 1 True, SHIFT 6487]), (26377, [Entry 1 True, SHIFT 5045]),
     (26379, [Entry 1 True, SHIFT 7050]), (26381, [Entry 1 True, SHIFT 6361]),
     (26383, [Entry 1 True, SHIFT 5046]), (26385, [Entry 1 True, SHIFT 6362]),
     (26387, [Entry 1 True, SHIFT 8615]), (26389, [Entry 1 True, SHIFT 3704]),
     (26391, [Entry 1 True, SHIFT 7051]), (26393, [Entry 1 True, SHIFT 3705]),
     (26395, [Entry 1 True, SHIFT 6363]), (26397, [Entry 1 True, SHIFT 5047]),
     (26399, [Entry 1 True, SHIFT 2441]), (26401, [Entry 1 True, SHIFT 7052]),
     (26403, [Entry 1 True, SHIFT 6364]), (26405, [Entry 1 True, SHIFT 5048]),
     (26407, [Entry 1 True, SHIFT 5865]), (26409, [Entry 1 True, SHIFT 6743]),
     (26411, [Entry 1 True, SHIFT 6365]), (26413, [Entry 1 True, SHIFT 6477]),
     (26415, [Entry 1 True, SHIFT 5050]), (26417, [Entry 1 True, SHIFT 4481]),
     (26419, [Entry 1 True, SHIFT 6367]), (26421, [Entry 1 True, SHIFT 5867]),
     (26423, [Entry 1 True, SHIFT 6368]), (26425, [Entry 1 True, SHIFT 6744]),
     (26427, [Entry 1 True, SHIFT 5054]), (26429, [Entry 1 True, SHIFT 5868]),
     (26431, [Entry 1 True, SHIFT 2442]), (26433, [Entry 1 True, SHIFT 3706]),
     (26435, [Entry 1 True, SHIFT 6369]), (26437, [Entry 1 True, SHIFT 4482]),
     (26439, [Entry 1 True, SHIFT 7054]), (26441, [Entry 1 True, SHIFT 3707]),
     (26443, [Entry 1 True, SHIFT 6370]), (26445, [Entry 1 True, SHIFT 4306]),
     (26447, [Entry 1 True, SHIFT 5071]), (26449, [Entry 1 True, SHIFT 5869]),
     (26451, [Entry 1 True, SHIFT 6371]), (26453, [Entry 1 True, SHIFT 7058]),
     (26455, [Entry 1 True, SHIFT 5072]), (26457, [Entry 1 True, SHIFT 3709]),
     (26459, [Entry 1 True, SHIFT 6373]), (26461, [Entry 1 True, SHIFT 6479]),
     (26463, [Entry 1 True, SHIFT 6374]), (26465, [Entry 1 True, SHIFT 3710]),
     (26467, [Entry 1 True, SHIFT 5073]), (26469, [Entry 1 True, SHIFT 2458]),
     (26471, [Entry 1 True, SHIFT 7885]), (26473, [Entry 1 True, SHIFT 4484]),
     (26475, [Entry 1 True, SHIFT 5075]), (26477, [Entry 1 True, SHIFT 3711]),
     (26479, [Entry 1 True, SHIFT 6375]), (26481, [Entry 1 True, SHIFT 5076]),
     (26483, [Entry 1 True, SHIFT 2355]), (26485, [Entry 1 True, SHIFT 2471]),
     (26487, [Entry 1 True, SHIFT 8780]), (26489, [Entry 1 True, SHIFT 5077]),
     (26491, [Entry 1 True, SHIFT 6376]), (26493, [Entry 1 True, SHIFT 3713]),
     (26495, [Entry 1 True, SHIFT 5871]), (26497, [Entry 1 True, SHIFT 3714]),
     (26499, [Entry 1 True, SHIFT 5079]), (26501, [Entry 1 True, SHIFT 6377]),
     (26503, [Entry 1 True, SHIFT 7079]), (26505, [Entry 1 True, SHIFT 5080]),
     (26507, [Entry 1 True, SHIFT 6746]), (26509, [Entry 1 True, SHIFT 6378]),
     (26511, [Entry 1 True, SHIFT 5872]), (26513, [Entry 1 True, SHIFT 3716]),
     (26515, [Entry 1 True, SHIFT 5082]), (26517, [Entry 1 True, SHIFT 6380]),
     (26519, [Entry 1 True, SHIFT 7086]), (26521, [Entry 1 True, SHIFT 6381]),
     (26523, [Entry 1 True, SHIFT 2499]), (26525, [Entry 1 True, SHIFT 3733]),
     (26527, [Entry 1 True, SHIFT 5086]), (26529, [Entry 1 True, SHIFT 3720]),
     (26531, [Entry 1 True, SHIFT 5087]), (26533, [Entry 1 True, SHIFT 4488]),
     (26535, [Entry 1 True, SHIFT 3721]), (26537, [Entry 1 True, SHIFT 6382]),
     (26539, [Entry 1 True, SHIFT 7088]), (26541, [Entry 1 True, SHIFT 7431]),
     (26543, [Entry 1 True, SHIFT 897]), (26545, [Entry 1 True, SHIFT 3722]),
     (26547, [Entry 1 True, SHIFT 6383]), (26549, [Entry 1 True, SHIFT 5088]),
     (26551, [Entry 1 True, SHIFT 5874]), (26553, [Entry 1 True, SHIFT 7092]),
     (26555, [Entry 1 True, SHIFT 6384]), (26557, [Entry 1 True, SHIFT 3168]),
     (26559, [Entry 1 True, SHIFT 3724]), (26561, [Entry 1 True, SHIFT 5089]),
     (26563, [Entry 1 True, SHIFT 6386]), (26565, [Entry 1 True, SHIFT 6387]),
     (26567, [Entry 1 True, SHIFT 4489]), (26569, [Entry 1 True, SHIFT 6480]),
     (26571, [Entry 1 True, SHIFT 5090]), (26573, [Entry 1 True, SHIFT 3728]),
     (26575, [Entry 1 True, SHIFT 6388]), (26577, [Entry 1 True, SHIFT 6750]),
     (26579, [Entry 1 True, SHIFT 5878]), (26581, [Entry 1 True, SHIFT 5092]),
     (26583, [Entry 1 True, SHIFT 6389]), (26585, [Entry 1 True, SHIFT 5683]),
     (26587, [Entry 1 True, SHIFT 5093]), (26589, [Entry 1 True, SHIFT 5879]),
     (26591, [Entry 1 True, SHIFT 6391]), (26593, [Entry 1 True, SHIFT 6751]),
     (26595, [Entry 1 True, SHIFT 6392]), (26597, [Entry 1 True, SHIFT 4490]),
     (26599, [Entry 1 True, SHIFT 7114]), (26601, [Entry 1 True, SHIFT 5094]),
     (26603, [Entry 1 True, SHIFT 6393]), (26605, [Entry 1 True, SHIFT 6585]),
     (26607, [Entry 1 True, SHIFT 3745]), (26609, [Entry 1 True, SHIFT 3172]),
     (26611, [Entry 1 True, SHIFT 6395]), (26613, [Entry 1 True, SHIFT 5096]),
     (26615, [Entry 1 True, SHIFT 6396]), (26617, [Entry 1 True, SHIFT 7115]),
     (26619, [Entry 1 True, SHIFT 5097]), (26621, [Entry 1 True, SHIFT 3746]),
     (26623, [Entry 1 True, SHIFT 6398]), (26625, [Entry 1 True, SHIFT 6482]),
     (26627, [Entry 1 True, SHIFT 8095]), (26629, [Entry 1 True, SHIFT 5099]),
     (26631, [Entry 1 True, SHIFT 6402]), (26633, [Entry 1 True, SHIFT 4358]),
     (26635, [Entry 1 True, SHIFT 6403]), (26637, [Entry 1 True, SHIFT 3747]),
     (26639, [Entry 1 True, SHIFT 7116]), (26641, [Entry 1 True, SHIFT 5103]),
     (26643, [Entry 1 True, SHIFT 6588]), (26645, [Entry 1 True, SHIFT 5104]),
     (26647, [Entry 1 True, SHIFT 5880]), (26649, [Entry 1 True, SHIFT 6404]),
     (26651, [Entry 1 True, SHIFT 3749]), (26653, [Entry 1 True, SHIFT 5106]),
     (26655, [Entry 1 True, SHIFT 3741]), (26657, [Entry 1 True, SHIFT 3750]),
     (26659, [Entry 1 True, SHIFT 7118]), (26661, [Entry 1 True, SHIFT 5110]),
     (26663, [Entry 1 True, SHIFT 6405]), (26665, [Entry 1 True, SHIFT 4491]),
     (26667, [Entry 1 True, SHIFT 7119]), (26669, [Entry 1 True, SHIFT 3752]),
     (26671, [Entry 1 True, SHIFT 3088]), (26673, [Entry 1 True, SHIFT 5117])]"

lemma ts_parse_actions_88_tiled: "tiled_from 26375 ts_parse_actions_88 \<and> after_runs 26375 ts_parse_actions_88 = 26675"
  unfolding ts_parse_actions_88_def by (simp cong: runs_weak)

lemma ts_parse_actions_88_ok: "list_all (\<lambda>(i, es). group_ok es) ts_parse_actions_88"
  unfolding ts_parse_actions_88_def
  by (simp add: group_ok_simps entry_action_ok_simps del: One_nat_def group_ok.simps cong: list_all_weak)

text \<open>Lines 493921 to 494070.\<close>

definition ts_parse_actions_89 :: "(nat \<times> TSParseActionEntry list) list" where
  "ts_parse_actions_89 =
    [(26675, [Entry 1 True, SHIFT 3174]), (26677, [Entry 1 True, SHIFT 5118]),
     (26679, [Entry 1 True, SHIFT 6406]), (26681, [Entry 1 True, SHIFT 6754]),
     (26683, [Entry 1 True, SHIFT 7121]), (26685, [Entry 1 True, SHIFT 7414]),
     (26687, [Entry 1 True, SHIFT 5881]), (26689, [Entry 1 True, SHIFT 5119]),
     (26691, [Entry 1 True, SHIFT 3766]), (26693, [Entry 1 True, SHIFT 6407]),
     (26695, [Entry 1 True, SHIFT 3416]), (26697, [Entry 1 True, SHIFT 6489]),
     (26699, [Entry 1 True, SHIFT 5120]), (26701, [Entry 1 True, SHIFT 4493]),
     (26703, [Entry 1 True, SHIFT 3768]), (26705, [Entry 1 True, SHIFT 6408]),
     (26707, [Entry 1 True, SHIFT 5883]), (26709, [Entry 1 True, SHIFT 5122]),
     (26711, [Entry 1 True, SHIFT 3769]), (26713, [Entry 1 True, SHIFT 7135]),
     (26715, [Entry 1 True, SHIFT 6409]), (26717, [Entry 1 True, SHIFT 6589]),
     (26719, [Entry 1 True, SHIFT 5126]), (26721, [Entry 1 True, SHIFT 5884]),
     (26723, [Entry 1 True, SHIFT 6410]), (26725, [Entry 1 True, SHIFT 3771]),
     (26727, [Entry 1 True, SHIFT 4494]), (26729, [Entry 1 True, SHIFT 7137]),
     (26731, [Entry 1 True, SHIFT 6412]), (26733, [Entry 1 True, SHIFT 6770]),
     (26735, [Entry 1 True, SHIFT 6413]), (26737, [Entry 1 True, SHIFT 3775]),
     (26739, [Entry 1 True, SHIFT 7138]), (26741, [Entry 1 True, SHIFT 3776]),
     (26743, [Entry 1 True, SHIFT 5143]), (26745, [Entry 1 True, SHIFT 5684]),
     (26747, [Entry 1 True, SHIFT 5885]), (26749, [Entry 1 True, SHIFT 5144]),
     (26751, [Entry 1 True, SHIFT 3778]), (26753, [Entry 1 True, SHIFT 18]),
     (26755, [Entry 1 True, SHIFT 7140]), (26757, [Entry 1 True, SHIFT 6414]),
     (26759, [Entry 1 True, SHIFT 5145]), (26761, [Entry 1 True, SHIFT 6776]),
     (26763, [Entry 1 True, SHIFT 4495]), (26765, [Entry 1 True, SHIFT 4288]),
     (26767, [Entry 1 True, SHIFT 3782]), (26769, [Entry 1 True, SHIFT 5887]),
     (26771, [Entry 1 True, SHIFT 5147]), (26773, [Entry 1 True, SHIFT 2539]),
     (26775, [Entry 1 True, SHIFT 5148]), (26777, [Entry 1 True, SHIFT 7147]),
     (26779, [Entry 1 True, SHIFT 6415]), (26781, [Entry 1 True, SHIFT 6502]),
     (26783, [Entry 1 True, SHIFT 3789]), (26785, [Entry 1 True, SHIFT 9214]),
     (26787, [Entry 1 True, SHIFT 9215]), (26789, [Entry 1 True, SHIFT 5888]),
     (26791, [Entry 1 True, SHIFT 6784]), (26793, [Entry 1 True, SHIFT 7389]),
     (26795, [Entry 1 True, SHIFT 4497]), (26797, [Entry 1 True, SHIFT 7386]),
     (26799, [Entry 1 True, SHIFT 5890]), (26801, [Entry 1 True, SHIFT 5149]),
     (26803, [Entry 1 True, SHIFT 7149]), (26805, [Entry 1 True, SHIFT 3790]),
     (26807, [Entry 1 True, SHIFT 4498]), (26809, [Entry 1 True, SHIFT 6416]),
     (26811, [Entry 1 True, SHIFT 5151]), (26813, [Entry 1 True, SHIFT 5152]),
     (26815, [Entry 1 True, SHIFT 7153]), (26817, [Entry 1 True, SHIFT 2544]),
     (26819, [Entry 1 True, SHIFT 6417]), (26821, [Entry 1 True, SHIFT 5154]),
     (26823, [Entry 1 True, SHIFT 3791]), (26825, [Entry 1 True, SHIFT 5894]),
     (26827, [Entry 1 True, SHIFT 6418]), (26829, [Entry 1 True, SHIFT 7185]),
     (26831, [Entry 1 True, SHIFT 5158]), (26833, [Entry 1 True, SHIFT 6789]),
     (26835, [Entry 1 True, SHIFT 6419]), (26837, [Entry 1 True, SHIFT 5159]),
     (26839, [Entry 1 True, SHIFT 3793]), (26841, [Entry 1 True, SHIFT 5895]),
     (26843, [Entry 1 True, SHIFT 6421]), (26845, [Entry 1 True, SHIFT 3794]),
     (26847, [Entry 1 True, SHIFT 6422]), (26849, [Entry 1 True, SHIFT 2528]),
     (26851, [Entry 1 True, SHIFT 5160]), (26853, [Entry 1 True, SHIFT 903]),
     (26855, [Entry 1 True, SHIFT 4078]), (26857, [Entry 1 True, SHIFT 3796]),
     (26859, [Entry 1 True, SHIFT 5161]), (26861, [Entry 1 True, SHIFT 4500]),
     (26863, [Entry 1 True, SHIFT 6423]), (26865, [Entry 1 True, SHIFT 4097]),
     (26867, [Entry 1 True, SHIFT 5698]), (26869, [Entry 1 True, SHIFT 5163]),
     (26871, [Entry 1 True, SHIFT 3800]), (26873, [Entry 1 True, SHIFT 6424]),
     (26875, [Entry 1 True, SHIFT 5164]), (26877, [Entry 1 True, SHIFT 2070]),
     (26879, [Entry 1 True, SHIFT 3801]), (26881, [Entry 1 True, SHIFT 6425]),
     (26883, [Entry 1 True, SHIFT 10317]), (26885, [Entry 1 True, SHIFT 5165]),
     (26887, [Entry 1 True, SHIFT 9739]), (26889, [Entry 1 True, SHIFT 6427]),
     (26891, [Entry 1 True, SHIFT 3803]), (26893, [Entry 1 True, SHIFT 6428]),
     (26895, [Entry 1 True, SHIFT 5167]), (26897, [Entry 1 True, SHIFT 4127]),
     (26899, [Entry 1 True, SHIFT 5168]), (26901, [Entry 1 True, SHIFT 6429]),
     (26903, [Entry 1 True, SHIFT 4504]), (26905, [Entry 1 True, SHIFT 3807]),
     (26907, [Entry 1 True, SHIFT 5685]), (26909, [Entry 1 True, SHIFT 6430]),
     (26911, [Entry 1 True, SHIFT 5170]), (26913, [Entry 1 True, SHIFT 4139]),
     (26915, [Entry 1 True, SHIFT 5896]), (26917, [Entry 1 True, SHIFT 6432]),
     (26919, [Entry 1 True, SHIFT 4129]), (26921, [Entry 1 True, SHIFT 6433]),
     (26923, [Entry 1 True, SHIFT 5174]), (26925, [Entry 1 True, SHIFT 3814]),
     (26927, [Entry 1 True, SHIFT 5175]), (26929, [Entry 1 True, SHIFT 6434]),
     (26931, [Entry 1 True, SHIFT 4505]), (26933, [Entry 1 True, SHIFT 3815]),
     (26935, [Entry 1 True, SHIFT 4141]), (26937, [Entry 1 True, SHIFT 6436]),
     (26939, [Entry 1 True, SHIFT 5176]), (26941, [Entry 1 True, SHIFT 6437]),
     (26943, [Entry 1 True, SHIFT 2079]), (26945, [Entry 1 True, SHIFT 4186]),
     (26947, [Entry 1 True, SHIFT 6816]), (26949, [Entry 1 True, SHIFT 6439]),
     (26951, [Entry 1 True, SHIFT 5178]), (26953, [Entry 1 True, SHIFT 3816]),
     (26955, [Entry 1 True, SHIFT 4142]), (26957, [Entry 1 True, SHIFT 6443]),
     (26959, [Entry 1 True, SHIFT 4359]), (26961, [Entry 1 True, SHIFT 6444]),
     (26963, [Entry 1 True, SHIFT 5182]), (26965, [Entry 1 True, SHIFT 4765]),
     (26967, [Entry 1 True, SHIFT 6511]), (26969, [Entry 1 True, SHIFT 3817]),
     (26971, [Entry 1 True, SHIFT 4789]), (26973, [Entry 1 True, SHIFT 6820])]"

lemma ts_parse_actions_89_tiled: "tiled_from 26675 ts_parse_actions_89 \<and> after_runs 26675 ts_parse_actions_89 = 26975"
  unfolding ts_parse_actions_89_def by (simp cong: runs_weak)

lemma ts_parse_actions_89_ok: "list_all (\<lambda>(i, es). group_ok es) ts_parse_actions_89"
  unfolding ts_parse_actions_89_def
  by (simp add: group_ok_simps entry_action_ok_simps del: One_nat_def group_ok.simps cong: list_all_weak)

text \<open>Lines 494071 to 494220.\<close>

definition ts_parse_actions_90 :: "(nat \<times> TSParseActionEntry list) list" where
  "ts_parse_actions_90 =
    [(26975, [Entry 1 True, SHIFT 6445]), (26977, [Entry 1 True, SHIFT 4155]),
     (26979, [Entry 1 True, SHIFT 3818]), (26981, [Entry 1 True, SHIFT 4506]),
     (26983, [Entry 1 True, SHIFT 5199]), (26985, [Entry 1 True, SHIFT 4802]),
     (26987, [Entry 1 True, SHIFT 6612]), (26989, [Entry 1 True, SHIFT 6446]),
     (26991, [Entry 1 True, SHIFT 5200]), (26993, [Entry 1 True, SHIFT 3820]),
     (26995, [Entry 1 True, SHIFT 2435]), (26997, [Entry 1 True, SHIFT 3821]),
     (26999, [Entry 1 True, SHIFT 5201]), (27001, [Entry 1 True, SHIFT 4160]),
     (27003, [Entry 1 True, SHIFT 4997]), (27005, [Entry 1 True, SHIFT 6447]),
     (27007, [Entry 1 True, SHIFT 8215]), (27009, [Entry 1 True, SHIFT 5203]),
     (27011, [Entry 1 True, SHIFT 5204]), (27013, [Entry 1 True, SHIFT 6675]),
     (27015, [Entry 1 True, SHIFT 4508]), (27017, [Entry 1 True, SHIFT 6448]),
     (27019, [Entry 1 True, SHIFT 8225]), (27021, [Entry 1 True, SHIFT 5206]),
     (27023, [Entry 1 True, SHIFT 6823]), (27025, [Entry 1 True, SHIFT 5693]),
     (27027, [Entry 1 True, SHIFT 5784]), (27029, [Entry 1 True, SHIFT 6449]),
     (27031, [Entry 1 True, SHIFT 6614]), (27033, [Entry 1 True, SHIFT 3823]),
     (27035, [Entry 1 True, SHIFT 5898]), (27037, [Entry 1 True, SHIFT 5220]),
     (27039, [Entry 1 True, SHIFT 6450]), (27041, [Entry 1 True, SHIFT 4512]),
     (27043, [Entry 1 True, SHIFT 6494]), (27045, [Entry 1 True, SHIFT 3824]),
     (27047, [Entry 1 True, SHIFT 6451]), (27049, [Entry 1 True, SHIFT 5222]),
     (27051, [Entry 1 True, SHIFT 5687]), (27053, [Entry 1 True, SHIFT 5223]),
     (27055, [Entry 1 True, SHIFT 6453]), (27057, [Entry 1 True, SHIFT 3826]),
     (27059, [Entry 1 True, SHIFT 6454]), (27061, [Entry 1 True, SHIFT 7943]),
     (27063, [Entry 1 True, SHIFT 5013]), (27065, [Entry 1 True, SHIFT 5225]),
     (27067, [Entry 1 True, SHIFT 6715]), (27069, [Entry 1 True, SHIFT 3830]),
     (27071, [Entry 1 True, SHIFT 5229]), (27073, [Entry 1 True, SHIFT 6792]),
     (27075, [Entry 1 True, SHIFT 5230]), (27077, [Entry 1 True, SHIFT 6455]),
     (27079, [Entry 1 True, SHIFT 4224]), (27081, [Entry 1 True, SHIFT 5232]),
     (27083, [Entry 1 True, SHIFT 2445]), (27085, [Entry 1 True, SHIFT 7609]),
     (27087, [Entry 1 True, SHIFT 5899]), (27089, [Entry 1 True, SHIFT 5688]),
     (27091, [Entry 1 True, SHIFT 7853]), (27093, [Entry 1 True, SHIFT 9271]),
     (27095, [Entry 1 True, SHIFT 6856]), (27097, [Entry 1 True, SHIFT 4360]),
     (27099, [Entry 1 True, SHIFT 5900]), (27101, [Entry 1 True, SHIFT 7372]),
     (27103, [Entry 1 True, SHIFT 6874]), (27105, [Entry 1 True, SHIFT 5236]),
     (27107, [Entry 1 True, SHIFT 4244]), (27109, [Entry 1 True, SHIFT 3837]),
     (27111, [Entry 1 True, SHIFT 5711]), (27113, [Entry 1 True, SHIFT 6456]),
     (27115, [Entry 1 True, SHIFT 73]), (27117, [Entry 1 True, SHIFT 5243]),
     (27119, [Entry 1 True, SHIFT 3838]), (27121, [Entry 1 True, SHIFT 5244]),
     (27123, [Entry 1 True, SHIFT 6993]), (27125, [Entry 1 True, SHIFT 2453]),
     (27127, [Entry 1 True, SHIFT 6457]), (27129, [Entry 1 True, SHIFT 3840]),
     (27131, [Entry 1 True, SHIFT 4246]), (27133, [Entry 1 True, SHIFT 4043]),
     (27135, [Entry 1 True, SHIFT 3414]), (27137, [Entry 1 True, SHIFT 3910]),
     (27139, [Entry 1 True, SHIFT 6458]), (27141, [Entry 1 True, SHIFT 3841]),
     (27143, [Entry 1 True, SHIFT 4529]), (27145, [Entry 1 True, SHIFT 5247]),
     (27147, [Entry 1 True, SHIFT 3371]), (27149, [Entry 1 True, SHIFT 6459]),
     (27151, [Entry 1 True, SHIFT 5248]), (27153, [Entry 1 True, SHIFT 3842]),
     (27155, [Entry 1 True, SHIFT 4250]), (27157, [Entry 1 True, SHIFT 6460]),
     (27159, [Entry 1 True, SHIFT 5902]), (27161, [Entry 1 True, SHIFT 5250]),
     (27163, [Entry 1 True, SHIFT 3844]), (27165, [Entry 1 True, SHIFT 6462]),
     (27167, [Entry 1 True, SHIFT 2459]), (27169, [Entry 1 True, SHIFT 6463]),
     (27171, [Entry 1 True, SHIFT 6861]), (27173, [Entry 1 True, SHIFT 5254]),
     (27175, [Entry 1 True, SHIFT 5255]), (27177, [Entry 1 True, SHIFT 911]),
     (27179, [Entry 1 True, SHIFT 5257]), (27181, [Entry 1 True, SHIFT 4313]),
     (27183, [Entry 1 True, SHIFT 5903]), (27185, [Entry 1 True, SHIFT 6464]),
     (27187, [Entry 1 True, SHIFT 5261]), (27189, [Entry 1 True, SHIFT 3851]),
     (27191, [Entry 1 True, SHIFT 4349]), (27193, [Entry 1 True, SHIFT 4530]),
     (27195, [Entry 1 True, SHIFT 7614]), (27197, [Entry 1 True, SHIFT 6862]),
     (27199, [Entry 1 True, SHIFT 7882]), (27201, [Entry 1 True, SHIFT 7736]),
     (27203, [Entry 1 True, SHIFT 5904]), (27205, [Entry 1 True, SHIFT 6527]),
     (27207, [Entry 1 True, SHIFT 5268]), (27209, [Entry 1 True, SHIFT 3856]),
     (27211, [Entry 1 True, SHIFT 5269]), (27213, [Entry 1 True, SHIFT 2468]),
     (27215, [Entry 1 True, SHIFT 6465]), (27217, [Entry 1 True, SHIFT 3858]),
     (27219, [Entry 1 True, SHIFT 4374]), (27221, [Entry 1 True, SHIFT 4325]),
     (27223, [Entry 1 True, SHIFT 4531]), (27225, [Entry 1 True, SHIFT 6496]),
     (27227, [Entry 1 True, SHIFT 5905]), (27229, [Entry 1 True, SHIFT 6864]),
     (27231, [Entry 1 True, SHIFT 5270]), (27233, [Entry 1 True, REDUCE sym_transition_name 1 0 0]),
     (27235, [Entry 1 True, SHIFT 7376]), (27237, [Entry 1 True, SHIFT 4533]),
     (27239, [Entry 1 True, SHIFT 5907]), (27241, [Entry 1 True, SHIFT 8129]),
     (27243, [Entry 1 True, SHIFT 5908]), (27245, [Entry 1 True, SHIFT 7378]),
     (27247, [Entry 1 True, SHIFT 4534]), (27249, [Entry 1 True, SHIFT 6532]),
     (27251, [Entry 1 True, SHIFT 3862]), (27253, [Entry 1 True, SHIFT 6870]),
     (27255, [Entry 1 True, SHIFT 4431]), (27257, [Entry 1 True, SHIFT 5271]),
     (27259, [Entry 1 True, SHIFT 4330]), (27261, [Entry 1 True, SHIFT 3863]),
     (27263, [Entry 1 True, SHIFT 4438]), (27265, [Entry 1 True, SHIFT 5272]),
     (27267, [Entry 1 True, SHIFT 3865]), (27269, [Entry 1 True, SHIFT 5909]),
     (27271, [Entry 1 True, SHIFT 5690]), (27273, [Entry 1 True, SHIFT 4536])]"

lemma ts_parse_actions_90_tiled: "tiled_from 26975 ts_parse_actions_90 \<and> after_runs 26975 ts_parse_actions_90 = 27275"
  unfolding ts_parse_actions_90_def by (simp cong: runs_weak)

lemma ts_parse_actions_90_ok: "list_all (\<lambda>(i, es). group_ok es) ts_parse_actions_90"
  unfolding ts_parse_actions_90_def
  by (simp add: group_ok_simps entry_action_ok_simps del: One_nat_def group_ok.simps cong: list_all_weak)

text \<open>Lines 494221 to 494370.\<close>

definition ts_parse_actions_91 :: "(nat \<times> TSParseActionEntry list) list" where
  "ts_parse_actions_91 =
    [(27275, [Entry 1 True, SHIFT 5274]), (27277, [Entry 1 True, SHIFT 6534]),
     (27279, [Entry 1 True, SHIFT 5911]), (27281, [Entry 1 True, SHIFT 6878]),
     (27283, [Entry 1 True, SHIFT 5275]), (27285, [Entry 1 True, SHIFT 3869]),
     (27287, [Entry 1 True, SHIFT 4667]), (27289, [Entry 1 True, SHIFT 5912]),
     (27291, [Entry 1 True, SHIFT 6642]), (27293, [Entry 1 True, SHIFT 7643]),
     (27295, [Entry 1 True, SHIFT 2007]), (27297, [Entry 1 True, SHIFT 6880]),
     (27299, [Entry 1 True, SHIFT 5914]), (27301, [Entry 1 True, SHIFT 5477]),
     (27303, [Entry 1 True, SHIFT 4550]), (27305, [Entry 1 True, SHIFT 6548]),
     (27307, [Entry 1 True, SHIFT 3870]), (27309, [Entry 1 True, SHIFT 5918]),
     (27311, [Entry 1 True, SHIFT 2529]), (27313, [Entry 1 True, SHIFT 6665]),
     (27315, [Entry 1 True, SHIFT 4369]), (27317, [Entry 1 True, SHIFT 5919]),
     (27319, [Entry 1 True, SHIFT 3871]), (27321, [Entry 1 True, SHIFT 6884]),
     (27323, [Entry 1 True, SHIFT 2530]), (27325, [Entry 1 True, SHIFT 5208]),
     (27327, [Entry 1 True, SHIFT 3872]), (27329, [Entry 1 True, SHIFT 4552]),
     (27331, [Entry 1 True, SHIFT 4362]), (27333, [Entry 1 True, SHIFT 2531]),
     (27335, [Entry 1 True, SHIFT 4553]), (27337, [Entry 1 True, SHIFT 3874]),
     (27339, [Entry 1 True, SHIFT 4046]), (27341, [Entry 1 True, SHIFT 5509]),
     (27343, [Entry 1 True, SHIFT 2533]), (27345, [Entry 1 True, SHIFT 5722]),
     (27347, [Entry 1 True, SHIFT 2535]), (27349, [Entry 1 True, SHIFT 5538]),
     (27351, [Entry 1 True, SHIFT 5920]), (27353, [Entry 1 True, SHIFT 6497]),
     (27355, [Entry 1 True, SHIFT 4407]), (27357, [Entry 1 True, SHIFT 3881]),
     (27359, [Entry 1 True, SHIFT 5282]), (27361, [Entry 1 True, SHIFT 5750]),
     (27363, [Entry 1 True, SHIFT 4555]), (27365, [Entry 1 True, SHIFT 9106]),
     (27367, [Entry 1 True, SHIFT 3886]), (27369, [Entry 1 True, SHIFT 5283]),
     (27371, [Entry 1 True, SHIFT 6669]), (27373, [Entry 1 True, SHIFT 3888]),
     (27375, [Entry 1 True, SHIFT 5851]), (27377, [Entry 1 True, SHIFT 5284]),
     (27379, [Entry 1 True, SHIFT 4409]), (27381, [Entry 1 True, SHIFT 5945]),
     (27383, [Entry 1 True, SHIFT 3892]), (27385, [Entry 1 True, SHIFT 5286]),
     (27387, [Entry 1 True, SHIFT 5631]), (27389, [Entry 1 True, SHIFT 4366]),
     (27391, [Entry 1 True, SHIFT 5287]), (27393, [Entry 1 True, SHIFT 4410]),
     (27395, [Entry 1 True, SHIFT 6316]), (27397, [Entry 1 True, SHIFT 3893]),
     (27399, [Entry 1 True, SHIFT 5288]), (27401, [Entry 1 True, SHIFT 4559]),
     (27403, [Entry 1 True, SHIFT 5921]), (27405, [Entry 1 True, SHIFT 3895]),
     (27407, [Entry 1 True, SHIFT 5704]), (27409, [Entry 1 True, SHIFT 4560]),
     (27411, [Entry 1 True, SHIFT 5290]), (27413, [Entry 1 True, SHIFT 6904]),
     (27415, [Entry 1 True, SHIFT 5291]), (27417, [Entry 1 True, SHIFT 6484]),
     (27419, [Entry 1 True, SHIFT 6673]), (27421, [Entry 1 True, SHIFT 5922]),
     (27423, [Entry 1 True, SHIFT 3899]), (27425, [Entry 1 True, SHIFT 4562]),
     (27427, [Entry 1 True, SHIFT 4412]), (27429, [Entry 1 True, SHIFT 6905]),
     (27431, [Entry 1 True, SHIFT 5293]), (27433, [Entry 1 True, SHIFT 8071]),
     (27435, [Entry 1 True, SHIFT 4290]), (27437, [Entry 1 True, SHIFT 3904]),
     (27439, [Entry 1 True, SHIFT 5297]), (27441, [Entry 1 True, SHIFT 5923]),
     (27443, [Entry 1 True, SHIFT 5298]), (27445, [Entry 1 True, SHIFT 7835]),
     (27447, [Entry 1 True, SHIFT 6544]), (27449, [Entry 1 True, SHIFT 4416]),
     (27451, [Entry 1 True, SHIFT 6546]), (27453, [Entry 1 True, SHIFT 5299]),
     (27455, [Entry 1 True, SHIFT 4566]), (27457, [Entry 1 True, SHIFT 3913]),
     (27459, [Entry 1 True, SHIFT 6906]), (27461, [Entry 1 True, SHIFT 5301]),
     (27463, [Entry 1 True, SHIFT 4454]), (27465, [Entry 1 True, SHIFT 5302]),
     (27467, [Entry 1 True, SHIFT 5925]), (27469, [Entry 1 True, SHIFT 2944]),
     (27471, [Entry 1 True, SHIFT 5304]), (27473, [Entry 1 True, SHIFT 6499]),
     (27475, [Entry 1 True, SHIFT 5926]), (27477, [Entry 1 True, SHIFT 7583]),
     (27479, [Entry 1 True, SHIFT 5308]), (27481, [Entry 1 True, SHIFT 3920]),
     (27483, [Entry 1 True, SHIFT 5309]), (27485, [Entry 1 True, SHIFT 5632]),
     (27487, [Entry 1 True, SHIFT 5706]), (27489, [Entry 1 True, SHIFT 5311]),
     (27491, [Entry 1 True, SHIFT 4573]), (27493, [Entry 1 True, SHIFT 3921]),
     (27495, [Entry 1 True, SHIFT 5927]), (27497, [Entry 1 True, SHIFT 6908]),
     (27499, [Entry 1 True, SHIFT 5315]), (27501, [Entry 1 True, SHIFT 3923]),
     (27503, [Entry 1 True, SHIFT 4459]), (27505, [Entry 1 True, SHIFT 6556]),
     (27507, [Entry 1 True, SHIFT 4574]), (27509, [Entry 1 True, SHIFT 5322]),
     (27511, [Entry 1 True, SHIFT 7158]), (27513, [Entry 1 True, SHIFT 5323]),
     (27515, [Entry 1 True, SHIFT 3924]), (27517, [Entry 1 True, SHIFT 5929]),
     (27519, [Entry 1 True, SHIFT 6568]), (27521, [Entry 1 True, SHIFT 5707]),
     (27523, [Entry 1 True, SHIFT 5930]), (27525, [Entry 1 True, SHIFT 5700]),
     (27527, [Entry 1 True, SHIFT 3925]), (27529, [Entry 1 True, SHIFT 5324]),
     (27531, [Entry 1 True, SHIFT 4467]), (27533, [Entry 1 True, SHIFT 6569]),
     (27535, [Entry 1 True, SHIFT 3927]), (27537, [Entry 1 True, SHIFT 906]),
     (27539, [Entry 1 True, SHIFT 5325]), (27541, [Entry 1 True, SHIFT 6912]),
     (27543, [Entry 1 True, REDUCE sym_int_kind 1 0 0]), (27545, [Entry 1 True, SHIFT 3928]),
     (27547, [Entry 1 True, SHIFT 5743]), (27549, [Entry 1 True, SHIFT 5326]),
     (27551, [Entry 1 True, SHIFT 6597]), (27553, [Entry 1 True, SHIFT 3930]),
     (27555, [Entry 1 True, SHIFT 7932]), (27557, [Entry 1 True, SHIFT 5328]),
     (27559, [Entry 1 True, SHIFT 7820]), (27561, [Entry 1 True, SHIFT 5329]),
     (27563, [Entry 1 True, SHIFT 5932]), (27565, [Entry 1 True, SHIFT 3934]),
     (27567, [Entry 1 True, SHIFT 4575]), (27569, [Entry 1 True, SHIFT 6617]),
     (27571, [Entry 1 True, SHIFT 5480]), (27573, [Entry 1 True, SHIFT 4058])]"

lemma ts_parse_actions_91_tiled: "tiled_from 27275 ts_parse_actions_91 \<and> after_runs 27275 ts_parse_actions_91 = 27575"
  unfolding ts_parse_actions_91_def by (simp cong: runs_weak)

lemma ts_parse_actions_91_ok: "list_all (\<lambda>(i, es). group_ok es) ts_parse_actions_91"
  unfolding ts_parse_actions_91_def
  by (simp add: group_ok_simps entry_action_ok_simps del: One_nat_def group_ok.simps cong: list_all_weak)

text \<open>Lines 494371 to 494520.\<close>

definition ts_parse_actions_92 :: "(nat \<times> TSParseActionEntry list) list" where
  "ts_parse_actions_92 =
    [(27575, [Entry 1 True, SHIFT 6618]), (27577, [Entry 1 True, SHIFT 5330]),
     (27579, [Entry 1 True, SHIFT 3935]), (27581, [Entry 1 True, SHIFT 2514]),
     (27583, [Entry 1 True, SHIFT 4539]), (27585, [Entry 1 True, SHIFT 6627]),
     (27587, [Entry 1 True, SHIFT 5936]), (27589, [Entry 1 True, SHIFT 5331]),
     (27591, [Entry 1 True, REDUCE sym_warn_pragma_level 1 0 0]),
     (27593, [Entry 1 True, SHIFT 3936]), (27595, [Entry 1 True, SHIFT 4541]),
     (27597, [Entry 1 True, SHIFT 5332]), (27599, [Entry 1 True, SHIFT 6694]),
     (27601, [Entry 1 True, SHIFT 6638]), (27603, [Entry 1 True, SHIFT 3937]),
     (27605, [Entry 1 True, SHIFT 5334]), (27607, [Entry 1 True, SHIFT 912]),
     (27609, [Entry 1 True, SHIFT 5335]), (27611, [Entry 1 True, SHIFT 3939]),
     (27613, [Entry 1 True, SHIFT 5937]), (27615, [Entry 1 True, SHIFT 4542]),
     (27617, [Entry 1 True, SHIFT 4577]), (27619, [Entry 1 True, SHIFT 5336]),
     (27621, [Entry 1 True, SHIFT 3943]), (27623, [Entry 1 True, SHIFT 6809]),
     (27625, [Entry 1 True, SHIFT 7871]), (27627, [Entry 1 True, SHIFT 5338]),
     (27629, [Entry 1 True, SHIFT 5339]), (27631, [Entry 1 True, SHIFT 6844]),
     (27633, [Entry 1 True, SHIFT 4578]), (27635, [Entry 1 True, SHIFT 4543]),
     (27637, [Entry 1 True, SHIFT 5341]), (27639, [Entry 1 True, SHIFT 6846]),
     (27641, [Entry 1 True, SHIFT 3950]), (27643, [Entry 1 True, SHIFT 5345]),
     (27645, [Entry 1 True, SHIFT 202]), (27647, [Entry 1 True, SHIFT 5346]),
     (27649, [Entry 1 True, SHIFT 4059]), (27651, [Entry 1 True, SHIFT 3951]),
     (27653, [Entry 1 True, SHIFT 5348]), (27655, [Entry 1 True, SHIFT 4545]),
     (27657, [Entry 1 True, SHIFT 5938]), (27659, [Entry 1 True, SHIFT 3953]),
     (27661, [Entry 1 True, SHIFT 5352]), (27663, [Entry 1 True, SHIFT 4546]),
     (27665, [Entry 1 True, SHIFT 6574]), (27667, [Entry 1 True, SHIFT 6934]),
     (27669, [Entry 1 True, SHIFT 3954]), (27671, [Entry 1 True, SHIFT 5359]),
     (27673, [Entry 1 True, SHIFT 4580]), (27675, [Entry 1 True, SHIFT 5360]),
     (27677, [Entry 1 True, SHIFT 6930]), (27679, [Entry 1 True, SHIFT 3955]),
     (27681, [Entry 1 True, SHIFT 3120]), (27683, [Entry 1 True, SHIFT 6936]),
     (27685, [Entry 1 True, SHIFT 5361]), (27687, [Entry 1 True, SHIFT 3957]),
     (27689, [Entry 1 True, SHIFT 4547]), (27691, [Entry 1 True, SHIFT 6947]),
     (27693, [Entry 1 True, SHIFT 5362]), (27695, [Entry 1 True, SHIFT 5940]),
     (27697, [Entry 1 True, SHIFT 3121]), (27699, [Entry 1 True, SHIFT 5709]),
     (27701, [Entry 1 True, SHIFT 5364]), (27703, [Entry 1 True, SHIFT 3958]),
     (27705, [Entry 1 True, SHIFT 6984]), (27707, [Entry 1 True, SHIFT 4557]),
     (27709, [Entry 1 True, SHIFT 5368]), (27711, [Entry 1 True, SHIFT 3442]),
     (27713, [Entry 1 True, SHIFT 3959]), (27715, [Entry 1 True, SHIFT 4564]),
     (27717, [Entry 1 True, SHIFT 3961]), (27719, [Entry 1 True, SHIFT 7070]),
     (27721, [Entry 1 True, SHIFT 5941]), (27723, [Entry 1 True, SHIFT 6718]),
     (27725, [Entry 1 True, SHIFT 3965]), (27727, [Entry 1 True, SHIFT 5385]),
     (27729, [Entry 1 True, SHIFT 3418]), (27731, [Entry 1 True, SHIFT 2322]),
     (27733, [Entry 1 True, SHIFT 5386]), (27735, [Entry 1 True, SHIFT 4584]),
     (27737, [Entry 1 True, SHIFT 4569]), (27739, [Entry 1 True, SHIFT 3439]),
     (27741, [Entry 1 True, SHIFT 5387]), (27743, [Entry 1 True, SHIFT 6938]),
     (27745, [Entry 1 True, SHIFT 5943]), (27747, [Entry 1 True, SHIFT 7687]),
     (27749, [Entry 1 True, SHIFT 4585]), (27751, [Entry 1 True, SHIFT 6576]),
     (27753, [Entry 1 True, SHIFT 56]), (27755, [Entry 1 True, SHIFT 5389]),
     (27757, [Entry 1 True, SHIFT 3972]), (27759, [Entry 1 True, SHIFT 5390]),
     (27761, [Entry 1 True, SHIFT 3476]), (27763, [Entry 1 True, SHIFT 4593]),
     (27765, [Entry 1 True, SHIFT 3973]), (27767, [Entry 1 True, SHIFT 5391]),
     (27769, [Entry 1 True, SHIFT 4594]), (27771, [Entry 1 True, SHIFT 3975]),
     (27773, [Entry 1 True, SHIFT 5393]), (27775, [Entry 1 True, SHIFT 5633]),
     (27777, [Entry 1 True, SHIFT 5394]), (27779, [Entry 1 True, SHIFT 2115]),
     (27781, [Entry 1 True, SHIFT 4619]), (27783, [Entry 1 True, SHIFT 3976]),
     (27785, [Entry 1 True, SHIFT 5396]), (27787, [Entry 1 True, SHIFT 5947]),
     (27789, [Entry 1 True, SHIFT 4587]), (27791, [Entry 1 True, SHIFT 3977]),
     (27793, [Entry 1 True, SHIFT 5400]), (27795, [Entry 1 True, SHIFT 3587]),
     (27797, [Entry 1 True, SHIFT 5401]), (27799, [Entry 1 True, SHIFT 2117]),
     (27801, [Entry 1 True, SHIFT 3979]), (27803, [Entry 1 True, SHIFT 3589]),
     (27805, [Entry 1 True, SHIFT 4642]), (27807, [Entry 1 True, SHIFT 5402]),
     (27809, [Entry 1 True, SHIFT 39]), (27811, [Entry 1 True, SHIFT 5948]),
     (27813, [Entry 1 True, SHIFT 5403]), (27815, [Entry 1 True, SHIFT 4383]),
     (27817, [Entry 1 True, SHIFT 3598]), (27819, [Entry 1 True, SHIFT 947]),
     (27821, [Entry 1 True, SHIFT 5405]), (27823, [Entry 1 True, SHIFT 3986]),
     (27825, [Entry 1 True, SHIFT 5406]), (27827, [Entry 1 True, SHIFT 4690]),
     (27829, [Entry 1 True, SHIFT 6940]), (27831, [Entry 1 True, SHIFT 3602]),
     (27833, [Entry 1 True, SHIFT 5950]), (27835, [Entry 1 True, SHIFT 5407]),
     (27837, [Entry 1 True, SHIFT 6577]), (27839, [Entry 1 True, SHIFT 4591]),
     (27841, [Entry 1 True, SHIFT 3991]), (27843, [Entry 1 True, SHIFT 5954]),
     (27845, [Entry 1 True, SHIFT 4294]), (27847, [Entry 1 True, SHIFT 4694]),
     (27849, [Entry 1 True, SHIFT 3993]), (27851, [Entry 1 True, SHIFT 5409]),
     (27853, [Entry 1 True, SHIFT 6944]), (27855, [Entry 1 True, SHIFT 5410]),
     (27857, [Entry 1 True, SHIFT 9893]), (27859, [Entry 1 True, SHIFT 3608]),
     (27861, [Entry 1 True, SHIFT 3997]), (27863, [Entry 1 True, SHIFT 5412]),
     (27865, [Entry 1 True, SHIFT 3683]), (27867, [Entry 1 True, SHIFT 4697]),
     (27869, [Entry 1 True, SHIFT 2478]), (27871, [Entry 1 True, SHIFT 5416]),
     (27873, [Entry 1 True, SHIFT 3998])]"

lemma ts_parse_actions_92_tiled: "tiled_from 27575 ts_parse_actions_92 \<and> after_runs 27575 ts_parse_actions_92 = 27875"
  unfolding ts_parse_actions_92_def by (simp cong: runs_weak)

lemma ts_parse_actions_92_ok: "list_all (\<lambda>(i, es). group_ok es) ts_parse_actions_92"
  unfolding ts_parse_actions_92_def
  by (simp add: group_ok_simps entry_action_ok_simps del: One_nat_def group_ok.simps cong: list_all_weak)

text \<open>Lines 494521 to 494670.\<close>

definition ts_parse_actions_93 :: "(nat \<times> TSParseActionEntry list) list" where
  "ts_parse_actions_93 =
    [(27875, [Entry 1 True, SHIFT 5417]), (27877, [Entry 1 True, SHIFT 3615]),
     (27879, [Entry 1 True, SHIFT 4000]), (27881, [Entry 1 True, SHIFT 4061]),
     (27883, [Entry 1 True, SHIFT 4598]), (27885, [Entry 1 True, SHIFT 921]),
     (27887, [Entry 1 True, SHIFT 4004]), (27889, [Entry 1 True, SHIFT 5418]),
     (27891, [Entry 1 True, SHIFT 5961]), (27893, [Entry 1 True, SHIFT 5713]),
     (27895, [Entry 1 True, SHIFT 4893]), (27897, [Entry 1 True, SHIFT 4005]),
     (27899, [Entry 1 True, SHIFT 5962]), (27901, [Entry 1 True, SHIFT 4599]),
     (27903, [Entry 1 True, SHIFT 5419]), (27905, [Entry 1 True, SHIFT 6767]),
     (27907, [Entry 1 True, SHIFT 7602]), (27909, [Entry 1 True, SHIFT 6581]),
     (27911, [Entry 1 True, SHIFT 5714]), (27913, [Entry 1 True, SHIFT 5420]),
     (27915, [Entry 1 True, SHIFT 3860]), (27917, [Entry 1 True, SHIFT 5963]),
     (27919, [Entry 1 True, SHIFT 8196]), (27921, [Entry 1 True, SHIFT 5421]),
     (27923, [Entry 1 True, SHIFT 6829]), (27925, [Entry 1 True, SHIFT 4600]),
     (27927, [Entry 1 True, SHIFT 5115]), (27929, [Entry 1 True, SHIFT 6583]),
     (27931, [Entry 1 True, SHIFT 5964]), (27933, [Entry 1 True, SHIFT 5423]),
     (27935, [Entry 1 True, SHIFT 4081]), (27937, [Entry 1 True, SHIFT 5424]),
     (27939, [Entry 1 True, SHIFT 4601]), (27941, [Entry 1 True, SHIFT 5965]),
     (27943, [Entry 1 True, SHIFT 7031]), (27945, [Entry 1 True, SHIFT 4384]),
     (27947, [Entry 1 True, SHIFT 5425]), (27949, [Entry 1 True, SHIFT 5967]),
     (27951, [Entry 1 True, SHIFT 4602]), (27953, [Entry 1 True, SHIFT 5426]),
     (27955, [Entry 1 True, SHIFT 5968]), (27957, [Entry 1 True, SHIFT 7038]),
     (27959, [Entry 1 True, SHIFT 5428]), (27961, [Entry 1 True, SHIFT 5716]),
     (27963, [Entry 1 True, SHIFT 5429]), (27965, [Entry 1 True, SHIFT 4905]),
     (27967, [Entry 1 True, SHIFT 3867]), (27969, [Entry 1 True, SHIFT 4006]),
     (27971, [Entry 1 True, SHIFT 5430]), (27973, [Entry 1 True, SHIFT 2358]),
     (27975, [Entry 1 True, SHIFT 4906]), (27977, [Entry 1 True, SHIFT 5635]),
     (27979, [Entry 1 True, SHIFT 5432]), (27981, [Entry 1 True, SHIFT 4007]),
     (27983, [Entry 1 True, SHIFT 5433]), (27985, [Entry 1 True, SHIFT 3877]),
     (27987, [Entry 1 True, SHIFT 4604]), (27989, [Entry 1 True, SHIFT 6772]),
     (27991, [Entry 1 True, SHIFT 5435]), (27993, [Entry 1 True, SHIFT 4009]),
     (27995, [Entry 1 True, SHIFT 4911]), (27997, [Entry 1 True, SHIFT 4010]),
     (27999, [Entry 1 True, SHIFT 5439]), (28001, [Entry 1 True, SHIFT 3879]),
     (28003, [Entry 1 True, SHIFT 5440]), (28005, [Entry 1 True, SHIFT 4280]),
     (28007, [Entry 1 True, SHIFT 3883]), (28009, [Entry 1 True, SHIFT 4012]),
     (28011, [Entry 1 True, SHIFT 10473]), (28013, [Entry 1 True, SHIFT 8117]),
     (28015, [Entry 1 True, SHIFT 4916]), (28017, [Entry 1 True, SHIFT 5441]),
     (28019, [Entry 1 True, SHIFT 4016]), (28021, [Entry 1 True, SHIFT 3884]),
     (28023, [Entry 1 True, SHIFT 4017]), (28025, [Entry 1 True, SHIFT 6774]),
     (28027, [Entry 1 True, SHIFT 5969]), (28029, [Entry 1 True, SHIFT 4019]),
     (28031, [Entry 1 True, SHIFT 5442]), (28033, [Entry 1 True, SHIFT 4935]),
     (28035, [Entry 1 True, SHIFT 3890]), (28037, [Entry 1 True, SHIFT 4605]),
     (28039, [Entry 1 True, SHIFT 4023]), (28041, [Entry 1 True, SHIFT 5443]),
     (28043, [Entry 1 True, SHIFT 3897]), (28045, [Entry 1 True, SHIFT 7041]),
     (28047, [Entry 1 True, SHIFT 4937]), (28049, [Entry 1 True, SHIFT 5444]),
     (28051, [Entry 1 True, SHIFT 6599]), (28053, [Entry 1 True, SHIFT 4030]),
     (28055, [Entry 1 True, SHIFT 3903]), (28057, [Entry 1 True, SHIFT 5446]),
     (28059, [Entry 1 True, SHIFT 4031]), (28061, [Entry 1 True, SHIFT 5447]),
     (28063, [Entry 1 True, SHIFT 5970]), (28065, [Entry 1 True, SHIFT 4955]),
     (28067, [Entry 1 True, SHIFT 5448]), (28069, [Entry 1 True, SHIFT 4033]),
     (28071, [Entry 1 True, SHIFT 3916]), (28073, [Entry 1 True, SHIFT 4082]),
     (28075, [Entry 1 True, SHIFT 5450]), (28077, [Entry 1 True, SHIFT 3917]),
     (28079, [Entry 1 True, SHIFT 5451]), (28081, [Entry 1 True, SHIFT 6803]),
     (28083, [Entry 1 True, SHIFT 7045]), (28085, [Entry 1 True, SHIFT 4385]),
     (28087, [Entry 1 True, SHIFT 5453]), (28089, [Entry 1 True, SHIFT 4047]),
     (28091, [Entry 1 True, SHIFT 9169]), (28093, [Entry 1 True, SHIFT 5971]),
     (28095, [Entry 1 True, SHIFT 5457]), (28097, [Entry 1 True, SHIFT 4606]),
     (28099, [Entry 1 True, SHIFT 5458]), (28101, [Entry 1 True, SHIFT 4049]),
     (28103, [Entry 1 True, SHIFT 9176]), (28105, [Entry 1 True, SHIFT 4050]),
     (28107, [Entry 1 True, SHIFT 7907]), (28109, [Entry 1 True, SHIFT 7046]),
     (28111, [Entry 1 True, SHIFT 5720]), (28113, [Entry 1 True, SHIFT 5973]),
     (28115, [Entry 1 True, SHIFT 5459]), (28117, [Entry 1 True, SHIFT 5636]),
     (28119, [Entry 1 True, SHIFT 4052]), (28121, [Entry 1 True, SHIFT 5974]),
     (28123, [Entry 1 True, SHIFT 5461]), (28125, [Entry 1 True, SHIFT 5606]),
     (28127, [Entry 1 True, SHIFT 5462]), (28129, [Entry 1 True, SHIFT 3918]),
     (28131, [Entry 1 True, SHIFT 4056]), (28133, [Entry 1 True, SHIFT 4607]),
     (28135, [Entry 1 True, SHIFT 5464]), (28137, [Entry 1 True, SHIFT 7066]),
     (28139, [Entry 1 True, REDUCE sym_access_path 3 0 667]), (28141, [Entry 1 True, SHIFT 6882]),
     (28143, [Entry 1 True, SHIFT 4608]), (28145, [Entry 1 True, SHIFT 4063]),
     (28147, [Entry 1 True, SHIFT 3932]), (28149, [Entry 1 True, SHIFT 5468]),
     (28151, [Entry 1 True, SHIFT 5003]), (28153, [Entry 1 True, SHIFT 5469]),
     (28155, [Entry 1 True, SHIFT 4065]), (28157, [Entry 1 True, SHIFT 2086]),
     (28159, [Entry 1 True, SHIFT 5471]), (28161, [Entry 1 True, SHIFT 3946]),
     (28163, [Entry 1 True, SHIFT 5005]), (28165, [Entry 1 True, SHIFT 4069]),
     (28167, [Entry 1 True, SHIFT 5475]), (28169, [Entry 1 True, SHIFT 6653]),
     (28171, [Entry 1 True, SHIFT 6854]), (28173, [Entry 1 True, SHIFT 6540])]"

lemma ts_parse_actions_93_tiled: "tiled_from 27875 ts_parse_actions_93 \<and> after_runs 27875 ts_parse_actions_93 = 28175"
  unfolding ts_parse_actions_93_def by (simp cong: runs_weak)

lemma ts_parse_actions_93_ok: "list_all (\<lambda>(i, es). group_ok es) ts_parse_actions_93"
  unfolding ts_parse_actions_93_def
  by (simp add: group_ok_simps entry_action_ok_simps del: One_nat_def group_ok.simps cong: list_all_weak)

text \<open>Lines 494671 to 494820.\<close>

definition ts_parse_actions_94 :: "(nat \<times> TSParseActionEntry list) list" where
  "ts_parse_actions_94 =
    [(28175, [Entry 1 True, SHIFT 5482]), (28177, [Entry 1 True, SHIFT 5975]),
     (28179, [Entry 1 True, SHIFT 5483]), (28181, [Entry 1 True, SHIFT 6857]),
     (28183, [Entry 1 True, SHIFT 3982]), (28185, [Entry 1 True, SHIFT 4086]),
     (28187, [Entry 1 True, SHIFT 5484]), (28189, [Entry 1 True, SHIFT 4610]),
     (28191, [Entry 1 True, SHIFT 4387]), (28193, [Entry 1 True, SHIFT 4611]),
     (28195, [Entry 1 True, SHIFT 4087]), (28197, [Entry 1 True, SHIFT 6561]),
     (28199, [Entry 1 True, SHIFT 3280]), (28201, [Entry 1 True, SHIFT 5485]),
     (28203, [Entry 1 True, SHIFT 4088]), (28205, [Entry 1 True, SHIFT 3990]),
     (28207, [Entry 1 True, SHIFT 6867]), (28209, [Entry 1 True, SHIFT 5486]),
     (28211, [Entry 1 True, SHIFT 4002]), (28213, [Entry 1 True, SHIFT 4090]),
     (28215, [Entry 1 True, REDUCE sym_IQM 1 0 0]), (28217, [Entry 1 True, SHIFT 5488]),
     (28219, [Entry 1 True, SHIFT 9412]), (28221, [Entry 1 True, SHIFT 5489]),
     (28223, [Entry 1 True, SHIFT 5976]), (28225, [Entry 1 True, SHIFT 4094]),
     (28227, [Entry 1 True, SHIFT 4039]), (28229, [Entry 1 True, SHIFT 7107]),
     (28231, [Entry 1 True, SHIFT 6655]), (28233, [Entry 1 True, SHIFT 5490]),
     (28235, [Entry 1 True, SHIFT 6894]), (28237, [Entry 1 True, SHIFT 4612]),
     (28239, [Entry 1 True, SHIFT 5977]), (28241, [Entry 1 True, SHIFT 5727]),
     (28243, [Entry 1 True, SHIFT 7110]), (28245, [Entry 1 True, SHIFT 6899]),
     (28247, [Entry 1 True, SHIFT 4044]), (28249, [Entry 1 True, SHIFT 5978]),
     (28251, [Entry 1 True, SHIFT 4614]), (28253, [Entry 1 True, SHIFT 7112]),
     (28255, [Entry 1 True, SHIFT 4072]), (28257, [Entry 1 True, SHIFT 5491]),
     (28259, [Entry 1 True, SHIFT 4111]), (28261, [Entry 1 True, SHIFT 5018]),
     (28263, [Entry 1 True, SHIFT 5492]), (28265, [Entry 1 True, SHIFT 87]),
     (28267, [Entry 1 True, SHIFT 4118]), (28269, [Entry 1 True, SHIFT 4084]),
     (28271, [Entry 1 True, SHIFT 5494]), (28273, [Entry 1 True, SHIFT 4615]),
     (28275, [Entry 1 True, SHIFT 5495]), (28277, [Entry 1 True, SHIFT 5980]),
     (28279, [Entry 1 True, SHIFT 4120]), (28281, [Entry 1 True, SHIFT 5020]),
     (28283, [Entry 1 True, SHIFT 6659]), (28285, [Entry 1 True, SHIFT 4103]),
     (28287, [Entry 1 True, SHIFT 5981]), (28289, [Entry 1 True, SHIFT 4301]),
     (28291, [Entry 1 True, SHIFT 5728]), (28293, [Entry 1 True, SHIFT 4617]),
     (28295, [Entry 1 True, SHIFT 7127]), (28297, [Entry 1 True, SHIFT 4388]),
     (28299, [Entry 1 True, SHIFT 5597]), (28301, [Entry 1 True, SHIFT 4621]),
     (28303, [Entry 1 True, SHIFT 5982]), (28305, [Entry 1 True, SHIFT 6914]),
     (28307, [Entry 1 True, SHIFT 4622]), (28309, [Entry 1 True, SHIFT 7142]),
     (28311, [Entry 1 True, SHIFT 4137]), (28313, [Entry 1 True, SHIFT 5983]),
     (28315, [Entry 1 True, SHIFT 7143]), (28317, [Entry 1 True, SHIFT 5259]),
     (28319, [Entry 1 True, SHIFT 5638]), (28321, [Entry 1 True, SHIFT 7876]),
     (28323, [Entry 1 True, SHIFT 7607]), (28325, [Entry 1 True, SHIFT 5984]),
     (28327, [Entry 1 True, SHIFT 4124]), (28329, [Entry 1 True, SHIFT 4623]),
     (28331, [Entry 1 True, SHIFT 5496]), (28333, [Entry 1 True, SHIFT 7145]),
     (28335, [Entry 1 True, SHIFT 5986]), (28337, [Entry 1 True, SHIFT 4302]),
     (28339, [Entry 1 True, SHIFT 5987]), (28341, [Entry 1 True, SHIFT 4625]),
     (28343, [Entry 1 True, SHIFT 6681]), (28345, [Entry 1 True, SHIFT 4626]),
     (28347, [Entry 1 True, SHIFT 7152]), (28349, [Entry 1 True, SHIFT 5988]),
     (28351, [Entry 1 True, SHIFT 4389]), (28353, [Entry 1 True, SHIFT 6682]),
     (28355, [Entry 1 True, SHIFT 4628]), (28357, [Entry 1 True, SHIFT 5989]),
     (28359, [Entry 1 True, SHIFT 5729]), (28361, [Entry 1 True, SHIFT 7750]),
     (28363, [Entry 1 True, SHIFT 7160]), (28365, [Entry 1 True, SHIFT 5991]),
     (28367, [Entry 1 True, SHIFT 4632]), (28369, [Entry 1 True, SHIFT 5992]),
     (28371, [Entry 1 True, SHIFT 4633]), (28373, [Entry 1 True, SHIFT 7161]),
     (28375, [Entry 1 True, SHIFT 5993]), (28377, [Entry 1 True, SHIFT 6686]),
     (28379, [Entry 1 True, SHIFT 4635]), (28381, [Entry 1 True, SHIFT 5995]),
     (28383, [Entry 1 True, SHIFT 5497]), (28385, [Entry 1 True, SHIFT 6687]),
     (28387, [Entry 1 True, SHIFT 5996]), (28389, [Entry 1 True, SHIFT 7177]),
     (28391, [Entry 1 True, SHIFT 4639]), (28393, [Entry 1 True, SHIFT 8582]),
     (28395, [Entry 1 True, SHIFT 5998]), (28397, [Entry 1 True, SHIFT 7162]),
     (28399, [Entry 1 True, SHIFT 3290]), (28401, [Entry 1 True, SHIFT 6689]),
     (28403, [Entry 1 True, SHIFT 6002]), (28405, [Entry 1 True, SHIFT 4646]),
     (28407, [Entry 1 True, SHIFT 6003]), (28409, [Entry 1 True, SHIFT 5642]),
     (28411, [Entry 1 True, SHIFT 4647]), (28413, [Entry 1 True, SHIFT 5731]),
     (28415, [Entry 1 True, SHIFT 4391]), (28417, [Entry 1 True, SHIFT 5732]),
     (28419, [Entry 1 True, SHIFT 5828]), (28421, [Entry 1 True, SHIFT 6004]),
     (28423, [Entry 1 True, SHIFT 4648]), (28425, [Entry 1 True, SHIFT 4392]),
     (28427, [Entry 1 True, SHIFT 5643]), (28429, [Entry 1 True, SHIFT 5734]),
     (28431, [Entry 1 True, SHIFT 4304]), (28433, [Entry 1 True, SHIFT 4649]),
     (28435, [Entry 1 True, SHIFT 6005]), (28437, [Entry 1 True, SHIFT 4394]),
     (28439, [Entry 1 True, SHIFT 7855]), (28441, [Entry 1 True, REDUCE sym_transition_cond 3 0 0]),
     (28443, [Entry 1 True, SHIFT 5738]), (28445, [Entry 1 True, SHIFT 6501]),
     (28447, [Entry 1 True, SHIFT 5739]), (28449, [Entry 1 True, SHIFT 4650]),
     (28451, [Entry 1 True, SHIFT 8038]), (28453, [Entry 1 True, SHIFT 6889]),
     (28455, [Entry 1 True, SHIFT 6006]), (28457, [Entry 1 True, SHIFT 3484]),
     (28459, [Entry 1 True, SHIFT 4652]), (28461, [Entry 1 True, SHIFT 5741]),
     (28463, [Entry 1 True, SHIFT 4653]), (28465, [Entry 1 True, SHIFT 6007]),
     (28467, [Entry 1 True, SHIFT 4398]), (28469, [Entry 1 True, SHIFT 4281]),
     (28471, [Entry 1 True, SHIFT 4399]), (28473, [Entry 1 True, SHIFT 6008])]"

lemma ts_parse_actions_94_tiled: "tiled_from 28175 ts_parse_actions_94 \<and> after_runs 28175 ts_parse_actions_94 = 28475"
  unfolding ts_parse_actions_94_def by (simp cong: runs_weak)

lemma ts_parse_actions_94_ok: "list_all (\<lambda>(i, es). group_ok es) ts_parse_actions_94"
  unfolding ts_parse_actions_94_def
  by (simp add: group_ok_simps entry_action_ok_simps del: One_nat_def group_ok.simps cong: list_all_weak)

text \<open>Lines 494821 to 494970.\<close>

definition ts_parse_actions_95 :: "(nat \<times> TSParseActionEntry list) list" where
  "ts_parse_actions_95 =
    [(28475, [Entry 1 True, SHIFT 5745]), (28477, [Entry 1 True, SHIFT 6507]),
     (28479, [Entry 1 True, SHIFT 6009]), (28481, [Entry 1 True, SHIFT 5615]),
     (28483, [Entry 1 True, SHIFT 5675]), (28485, [Entry 1 True, SHIFT 6011]),
     (28487, [Entry 1 True, SHIFT 5644]), (28489, [Entry 1 True, SHIFT 5752]),
     (28491, [Entry 1 True, SHIFT 17]), (28493, [Entry 1 True, SHIFT 5855]),
     (28495, [Entry 1 True, SHIFT 4654]), (28497, [Entry 1 True, SHIFT 5753]),
     (28499, [Entry 1 True, SHIFT 6012]), (28501, [Entry 1 True, SHIFT 5473]),
     (28503, [Entry 1 True, SHIFT 5892]), (28505, [Entry 1 True, SHIFT 6013]),
     (28507, [Entry 1 True, SHIFT 4655]), (28509, [Entry 1 True, REDUCE sym_extern_result 4 0 764]),
     (28511, [Entry 1 True, SHIFT 6014]),
     (28513, [Entry 1 True, REDUCE sym_ERR_access_spec_in_method_prototype 1 0 0]),
     (28515, [Entry 1 True, SHIFT 5645]), (28517, [Entry 1 True, SHIFT 6016]),
     (28519, [Entry 1 True, SHIFT 4656]), (28521, [Entry 1 True, SHIFT 5754]),
     (28523, [Entry 1 True, SHIFT 4318]), (28525, [Entry 1 True, SHIFT 4658]),
     (28527, [Entry 1 True, SHIFT 6017]), (28529, [Entry 1 True, SHIFT 2538]),
     (28531, [Entry 1 True, SHIFT 4659]), (28533, [Entry 1 True, SHIFT 6018]),
     (28535, [Entry 1 True, SHIFT 4227]), (28537, [Entry 1 True, SHIFT 5031]),
     (28539, [Entry 1 True, SHIFT 5498]), (28541, [Entry 1 True, SHIFT 6702]),
     (28543, [Entry 1 True, SHIFT 4133]), (28545, [Entry 1 True, SHIFT 5500]),
     (28547, [Entry 1 True, SHIFT 6020]), (28549, [Entry 1 True, SHIFT 6572]),
     (28551, [Entry 1 True, SHIFT 4146]), (28553, [Entry 1 True, SHIFT 6955]),
     (28555, [Entry 1 True, SHIFT 5501]), (28557, [Entry 1 True, SHIFT 4147]),
     (28559, [Entry 1 True, SHIFT 6509]), (28561, [Entry 1 True, SHIFT 6703]),
     (28563, [Entry 1 True, SHIFT 5502]), (28565, [Entry 1 True, SHIFT 4660]),
     (28567, [Entry 1 True, SHIFT 6956]), (28569, [Entry 1 True, SHIFT 6021]),
     (28571, [Entry 1 True, SHIFT 5504]), (28573, [Entry 1 True, SHIFT 4148]),
     (28575, [Entry 1 True, SHIFT 2421]), (28577, [Entry 1 True, SHIFT 4026]),
     (28579, [Entry 1 True, SHIFT 4241]), (28581, [Entry 1 True, SHIFT 5505]),
     (28583, [Entry 1 True, SHIFT 5069]), (28585, [Entry 1 True, SHIFT 5507]),
     (28587, [Entry 1 True, SHIFT 4150]), (28589, [Entry 1 True, SHIFT 6023]),
     (28591, [Entry 1 True, SHIFT 4151]), (28593, [Entry 1 True, SHIFT 5511]),
     (28595, [Entry 1 True, SHIFT 4242]), (28597, [Entry 1 True, SHIFT 6972]),
     (28599, [Entry 1 True, SHIFT 6995]), (28601, [Entry 1 True, SHIFT 4662]),
     (28603, [Entry 1 True, SHIFT 6027]), (28605, [Entry 1 True, SHIFT 2429]),
     (28607, [Entry 1 True, SHIFT 5124]), (28609, [Entry 1 True, SHIFT 4663]),
     (28611, [Entry 1 True, SHIFT 6704]), (28613, [Entry 1 True, SHIFT 6028]),
     (28615, [Entry 1 True, SHIFT 4278]), (28617, [Entry 1 True, SHIFT 5755]),
     (28619, [Entry 1 True, SHIFT 5512]), (28621, [Entry 1 True, SHIFT 4665]),
     (28623, [Entry 1 True, SHIFT 4153]), (28625, [Entry 1 True, SHIFT 2965]),
     (28627, [Entry 1 True, SHIFT 6029]), (28629, [Entry 1 True, SHIFT 2470]),
     (28631, [Entry 1 True, SHIFT 6706]), (28633, [Entry 1 True, SHIFT 4669]),
     (28635, [Entry 1 True, SHIFT 2414]), (28637, [Entry 1 True, SHIFT 4670]),
     (28639, [Entry 1 True, SHIFT 6030]), (28641, [Entry 1 True, SHIFT 2964]),
     (28643, [Entry 1 True, SHIFT 4296]), (28645, [Entry 1 True, SHIFT 4672]),
     (28647, [Entry 1 True, SHIFT 5647]), (28649, [Entry 1 True, SHIFT 2416]),
     (28651, [Entry 1 True, SHIFT 6710]), (28653, [Entry 1 True, SHIFT 6031]),
     (28655, [Entry 1 True, SHIFT 4676]), (28657, [Entry 1 True, SHIFT 5756]),
     (28659, [Entry 1 True, SHIFT 7075]), (28661, [Entry 1 True, SHIFT 6032]),
     (28663, [Entry 1 True, SHIFT 2418]), (28665, [Entry 1 True, SHIFT 4683]),
     (28667, [Entry 1 True, SHIFT 6902]), (28669, [Entry 1 True, SHIFT 6033]),
     (28671, [Entry 1 True, SHIFT 4684]), (28673, [Entry 1 True, SHIFT 1208]),
     (28675, [Entry 1 True, SHIFT 1209]), (28677, [Entry 1 True, SHIFT 6514]),
     (28679, [Entry 1 True, SHIFT 6034]), (28681, [Entry 1 True, SHIFT 2440]),
     (28683, [Entry 1 True, SHIFT 5758]), (28685, [Entry 1 True, SHIFT 7653]),
     (28687, [Entry 1 True, SHIFT 8085]), (28689, [Entry 1 True, SHIFT 7884]),
     (28691, [Entry 1 True, SHIFT 6036]), (28693, [Entry 1 True, SHIFT 6976]),
     (28695, [Entry 1 True, SHIFT 7076]), (28697, [Entry 1 True, SHIFT 5513]),
     (28699, [Entry 1 True, SHIFT 4685]), (28701, [Entry 1 True, SHIFT 4297]),
     (28703, [Entry 1 True, SHIFT 5129]), (28705, [Entry 1 True, SHIFT 24]),
     (28707, [Entry 1 True, SHIFT 5759]), (28709, [Entry 1 True, SHIFT 6921]),
     (28711, [Entry 1 True, SHIFT 7828]), (28713, [Entry 1 True, SHIFT 3305]),
     (28715, [Entry 1 True, SHIFT 2447]), (28717, [Entry 1 True, SHIFT 7860]),
     (28719, [Entry 1 True, REDUCE sym_ERR_single_after_priorty 4 0 1047]),
     (28721, [Entry 1 True, SHIFT 6516]), (28723, [Entry 1 True, SHIFT 3149]),
     (28725, [Entry 1 True, SHIFT 4041]), (28727, [Entry 1 True, SHIFT 4686]),
     (28729, [Entry 1 True, SHIFT 5648]), (28731, [Entry 1 True, SHIFT 6037]),
     (28733, [Entry 1 True, SHIFT 4167]), (28735, [Entry 1 True, SHIFT 5514]),
     (28737, [Entry 1 True, SHIFT 7235]), (28739, [Entry 1 True, SHIFT 4311]),
     (28741, [Entry 1 True, SHIFT 6727]), (28743, [Entry 1 True, SHIFT 5515]),
     (28745, [Entry 1 True, SHIFT 1217]), (28747, [Entry 1 True, SHIFT 1190]),
     (28749, [Entry 1 True, SHIFT 5760]), (28751, [Entry 1 True, SHIFT 4169]),
     (28753, [Entry 1 True, SHIFT 1198]), (28755, [Entry 1 True, SHIFT 5517]),
     (28757, [Entry 1 True, SHIFT 6982]), (28759, [Entry 1 True, SHIFT 4170]),
     (28761, [Entry 1 True, SHIFT 4333]), (28763, [Entry 1 True, SHIFT 5518]),
     (28765, [Entry 1 True, SHIFT 4688]), (28767, [Entry 1 True, SHIFT 5619]),
     (28769, [Entry 1 True, SHIFT 2026]), (28771, [Entry 1 True, SHIFT 5137]),
     (28773, [Entry 1 True, SHIFT 6038])]"

lemma ts_parse_actions_95_tiled: "tiled_from 28475 ts_parse_actions_95 \<and> after_runs 28475 ts_parse_actions_95 = 28775"
  unfolding ts_parse_actions_95_def by (simp cong: runs_weak)

lemma ts_parse_actions_95_ok: "list_all (\<lambda>(i, es). group_ok es) ts_parse_actions_95"
  unfolding ts_parse_actions_95_def
  by (simp add: group_ok_simps entry_action_ok_simps del: One_nat_def group_ok.simps cong: list_all_weak)

text \<open>Lines 494971 to 495120.\<close>

definition ts_parse_actions_96 :: "(nat \<times> TSParseActionEntry list) list" where
  "ts_parse_actions_96 =
    [(28775, [Entry 1 True, SHIFT 6735]), (28777, [Entry 1 True, SHIFT 2422]),
     (28779, [Entry 1 True, SHIFT 4692]), (28781, [Entry 1 True, SHIFT 6039]),
     (28783, [Entry 1 True, SHIFT 6924]), (28785, [Entry 1 True, SHIFT 2423]),
     (28787, [Entry 1 True, SHIFT 2133]), (28789, [Entry 1 True, SHIFT 2451]),
     (28791, [Entry 1 True, SHIFT 2059]), (28793, [Entry 1 True, SHIFT 6041]),
     (28795, [Entry 1 True, SHIFT 5520]), (28797, [Entry 1 True, SHIFT 7240]),
     (28799, [Entry 1 True, SHIFT 6523]), (28801, [Entry 1 True, SHIFT 7242]),
     (28803, [Entry 1 True, SHIFT 4172]), (28805, [Entry 1 True, SHIFT 9554]),
     (28807, [Entry 1 True, SHIFT 7245]), (28809, [Entry 1 True, SHIFT 5524]),
     (28811, [Entry 1 True, SHIFT 4396]), (28813, [Entry 1 True, SHIFT 7248]),
     (28815, [Entry 1 True, SHIFT 6042]), (28817, [Entry 1 True, SHIFT 4176]),
     (28819, [Entry 1 True, SHIFT 5525]), (28821, [Entry 1 True, SHIFT 6737]),
     (28823, [Entry 1 True, SHIFT 2426]), (28825, [Entry 1 True, SHIFT 4320]),
     (28827, [Entry 1 True, SHIFT 4177]), (28829, [Entry 1 True, SHIFT 2154]),
     (28831, [Entry 1 True, SHIFT 2155]), (28833, [Entry 1 True, SHIFT 6043]),
     (28835, [Entry 1 True, SHIFT 2076]), (28837, [Entry 1 True, SHIFT 5761]),
     (28839, [Entry 1 True, SHIFT 5526]), (28841, [Entry 1 True, SHIFT 4179]),
     (28843, [Entry 1 True, SHIFT 7252]), (28845, [Entry 1 True, SHIFT 7000]),
     (28847, [Entry 1 True, SHIFT 4708]), (28849, [Entry 1 True, SHIFT 4345]),
     (28851, [Entry 1 True, SHIFT 6045]), (28853, [Entry 1 True, SHIFT 7811]),
     (28855, [Entry 1 True, SHIFT 2163]), (28857, [Entry 1 True, SHIFT 6741]),
     (28859, [Entry 1 True, SHIFT 2165]), (28861, [Entry 1 True, SHIFT 7255]),
     (28863, [Entry 1 True, SHIFT 5527]), (28865, [Entry 1 True, SHIFT 7001]),
     (28867, [Entry 1 True, SHIFT 7258]), (28869, [Entry 1 True, SHIFT 5529]),
     (28871, [Entry 1 True, SHIFT 7260]), (28873, [Entry 1 True, SHIFT 7261]),
     (28875, [Entry 1 True, SHIFT 4183]), (28877, [Entry 1 True, SHIFT 4469]),
     (28879, [Entry 1 True, SHIFT 7264]), (28881, [Entry 1 True, SHIFT 6999]),
     (28883, [Entry 1 True, SHIFT 7266]), (28885, [Entry 1 True, SHIFT 5533]),
     (28887, [Entry 1 True, SHIFT 7269]), (28889, [Entry 1 True, SHIFT 6046]),
     (28891, [Entry 1 True, SHIFT 2181]), (28893, [Entry 1 True, SHIFT 4709]),
     (28895, [Entry 1 True, SHIFT 4190]), (28897, [Entry 1 True, SHIFT 2185]),
     (28899, [Entry 1 True, SHIFT 7002]), (28901, [Entry 1 True, SHIFT 2187]),
     (28903, [Entry 1 True, SHIFT 4191]), (28905, [Entry 1 True, SHIFT 7271]),
     (28907, [Entry 1 True, SHIFT 5215]), (28909, [Entry 1 True, SHIFT 7273]),
     (28911, [Entry 1 True, SHIFT 2431]), (28913, [Entry 1 True, SHIFT 5540]),
     (28915, [Entry 1 True, SHIFT 7276]), (28917, [Entry 1 True, SHIFT 881]),
     (28919, [Entry 1 True, SHIFT 7279]), (28921, [Entry 1 True, SHIFT 5541]),
     (28923, [Entry 1 True, SHIFT 7816]), (28925, [Entry 1 True, SHIFT 2199]),
     (28927, [Entry 1 True, SHIFT 2452]), (28929, [Entry 1 True, SHIFT 7281]),
     (28931, [Entry 1 True, SHIFT 7282]), (28933, [Entry 1 True, SHIFT 4192]),
     (28935, [Entry 1 True, SHIFT 7284]), (28937, [Entry 1 True, SHIFT 5543]),
     (28939, [Entry 1 True, SHIFT 7286]), (28941, [Entry 1 True, SHIFT 7287]),
     (28943, [Entry 1 True, SHIFT 5216]), (28945, [Entry 1 True, SHIFT 6048]),
     (28947, [Entry 1 True, SHIFT 7290]), (28949, [Entry 1 True, SHIFT 7004]),
     (28951, [Entry 1 True, SHIFT 7292]), (28953, [Entry 1 True, SHIFT 7293]),
     (28955, [Entry 1 True, SHIFT 5544]), (28957, [Entry 1 True, SHIFT 2215]),
     (28959, [Entry 1 True, SHIFT 90]), (28961, [Entry 1 True, SHIFT 2217]),
     (28963, [Entry 1 True, SHIFT 2218]), (28965, [Entry 1 True, SHIFT 7295]),
     (28967, [Entry 1 True, SHIFT 4193]), (28969, [Entry 1 True, SHIFT 5545]),
     (28971, [Entry 1 True, SHIFT 7298]), (28973, [Entry 1 True, SHIFT 5217]),
     (28975, [Entry 1 True, SHIFT 7300]), (28977, [Entry 1 True, SHIFT 7301]),
     (28979, [Entry 1 True, SHIFT 4787]), (28981, [Entry 1 True, SHIFT 5547]),
     (28983, [Entry 1 True, SHIFT 7304]), (28985, [Entry 1 True, SHIFT 5861]),
     (28987, [Entry 1 True, SHIFT 7306]), (28989, [Entry 1 True, SHIFT 4194]),
     (28991, [Entry 1 True, SHIFT 884]), (28993, [Entry 1 True, SHIFT 7309]),
     (28995, [Entry 1 True, SHIFT 7310]), (28997, [Entry 1 True, SHIFT 7021]),
     (28999, [Entry 1 True, SHIFT 7312]), (29001, [Entry 1 True, SHIFT 7313]),
     (29003, [Entry 1 True, SHIFT 4803]), (29005, [Entry 1 True, SHIFT 7315]),
     (29007, [Entry 1 True, SHIFT 7316]), (29009, [Entry 1 True, SHIFT 4196]),
     (29011, [Entry 1 True, SHIFT 7318]), (29013, [Entry 1 True, SHIFT 5548]),
     (29015, [Entry 1 True, SHIFT 7320]), (29017, [Entry 1 True, SHIFT 2245]),
     (29019, [Entry 1 True, SHIFT 5227]), (29021, [Entry 1 True, SHIFT 7322]),
     (29023, [Entry 1 True, SHIFT 7323]), (29025, [Entry 1 True, SHIFT 4197]),
     (29027, [Entry 1 True, SHIFT 7325]), (29029, [Entry 1 True, SHIFT 4809]),
     (29031, [Entry 1 True, SHIFT 7327]), (29033, [Entry 1 True, SHIFT 7328]),
     (29035, [Entry 1 True, SHIFT 4710]), (29037, [Entry 1 True, SHIFT 5549]),
     (29039, [Entry 1 True, SHIFT 7331]), (29041, [Entry 1 True, SHIFT 5234]),
     (29043, [Entry 1 True, SHIFT 7333]), (29045, [Entry 1 True, SHIFT 7334]),
     (29047, [Entry 1 True, SHIFT 4198]), (29049, [Entry 1 True, SHIFT 7336]),
     (29051, [Entry 1 True, SHIFT 7337]), (29053, [Entry 1 True, SHIFT 2379]),
     (29055, [Entry 1 True, SHIFT 7339]), (29057, [Entry 1 True, SHIFT 7340]),
     (29059, [Entry 1 True, SHIFT 7341]), (29061, [Entry 1 True, SHIFT 5550]),
     (29063, [Entry 1 True, SHIFT 7343]), (29065, [Entry 1 True, SHIFT 7344]),
     (29067, [Entry 1 True, SHIFT 4851]), (29069, [Entry 1 True, SHIFT 7346]),
     (29071, [Entry 1 True, SHIFT 7347]), (29073, [Entry 1 True, SHIFT 91])]"

lemma ts_parse_actions_96_tiled: "tiled_from 28775 ts_parse_actions_96 \<and> after_runs 28775 ts_parse_actions_96 = 29075"
  unfolding ts_parse_actions_96_def by (simp cong: runs_weak)

lemma ts_parse_actions_96_ok: "list_all (\<lambda>(i, es). group_ok es) ts_parse_actions_96"
  unfolding ts_parse_actions_96_def
  by (simp add: group_ok_simps entry_action_ok_simps del: One_nat_def group_ok.simps cong: list_all_weak)

text \<open>Lines 495121 to 495270.\<close>

definition ts_parse_actions_97 :: "(nat \<times> TSParseActionEntry list) list" where
  "ts_parse_actions_97 =
    [(29075, [Entry 1 True, SHIFT 7349]), (29077, [Entry 1 True, SHIFT 5551]),
     (29079, [Entry 1 True, SHIFT 7351]), (29081, [Entry 1 True, SHIFT 7352]),
     (29083, [Entry 1 True, SHIFT 7353]), (29085, [Entry 1 True, SHIFT 7354]),
     (29087, [Entry 1 True, SHIFT 4200]), (29089, [Entry 1 True, SHIFT 7356]),
     (29091, [Entry 1 True, SHIFT 7357]), (29093, [Entry 1 True, SHIFT 7358]),
     (29095, [Entry 1 True, SHIFT 2439]), (29097, [Entry 1 True, SHIFT 6052]),
     (29099, [Entry 1 True, SHIFT 6025]), (29101, [Entry 1 True, SHIFT 6053]),
     (29103, [Entry 1 True, SHIFT 8203]), (29105, [Entry 1 True, SHIFT 4712]),
     (29107, [Entry 1 True, SHIFT 5553]), (29109, [Entry 1 True, SHIFT 5762]),
     (29111, [Entry 1 True, SHIFT 4713]), (29113, [Entry 1 True, SHIFT 9398]),
     (29115, [Entry 1 True, SHIFT 6054]), (29117, [Entry 1 True, SHIFT 4201]),
     (29119, [Entry 1 True, SHIFT 2492]), (29121, [Entry 1 True, SHIFT 7451]),
     (29123, [Entry 1 True, SHIFT 4714]), (29125, [Entry 1 True, SHIFT 6056]),
     (29127, [Entry 1 True, SHIFT 7866]), (29129, [Entry 1 True, SHIFT 6057]),
     (29131, [Entry 1 True, SHIFT 2969]), (29133, [Entry 1 True, SHIFT 2543]),
     (29135, [Entry 1 True, SHIFT 4716]), (29137, [Entry 1 True, SHIFT 5239]),
     (29139, [Entry 1 True, SHIFT 6059]), (29141, [Entry 1 True, SHIFT 4321]),
     (29143, [Entry 1 True, SHIFT 4717]), (29145, [Entry 1 True, SHIFT 908]),
     (29147, [Entry 1 True, SHIFT 4203]), (29149, [Entry 1 True, SHIFT 2411]),
     (29151, [Entry 1 True, SHIFT 6063]), (29153, [Entry 1 True, SHIFT 6763]),
     (29155, [Entry 1 True, SHIFT 6064]), (29157, [Entry 1 True, SHIFT 4719]),
     (29159, [Entry 1 True, SHIFT 6066]), (29161, [Entry 1 True, SHIFT 5764]),
     (29163, [Entry 1 True, SHIFT 6765]), (29165, [Entry 1 True, SHIFT 4860]),
     (29167, [Entry 1 True, SHIFT 5554]), (29169, [Entry 1 True, SHIFT 2295]),
     (29171, [Entry 1 True, SHIFT 1218]), (29173, [Entry 1 True, SHIFT 6070]),
     (29175, [Entry 1 True, SHIFT 4723]), (29177, [Entry 1 True, SHIFT 2014]),
     (29179, [Entry 1 True, SHIFT 4207]), (29181, [Entry 1 True, SHIFT 3427]),
     (29183, [Entry 1 True, SHIFT 4724]), (29185, [Entry 1 True, SHIFT 1221]),
     (29187, [Entry 1 True, SHIFT 6077]), (29189, [Entry 1 True, SHIFT 2456]),
     (29191, [Entry 1 True, SHIFT 1150]), (29193, [Entry 1 True, SHIFT 6078]),
     (29195, [Entry 1 True, SHIFT 5555]), (29197, [Entry 1 True, SHIFT 2138]),
     (29199, [Entry 1 True, SHIFT 7061]), (29201, [Entry 1 True, SHIFT 2140]),
     (29203, [Entry 1 True, SHIFT 4208]), (29205, [Entry 1 True, SHIFT 5556]),
     (29207, [Entry 1 True, SHIFT 2143]), (29209, [Entry 1 True, SHIFT 4865]),
     (29211, [Entry 1 True, SHIFT 7498]), (29213, [Entry 1 True, SHIFT 2146]),
     (29215, [Entry 1 True, SHIFT 5558]), (29217, [Entry 1 True, SHIFT 1168]),
     (29219, [Entry 1 True, SHIFT 9490]), (29221, [Entry 1 True, SHIFT 4867]),
     (29223, [Entry 1 True, SHIFT 4209]), (29225, [Entry 1 True, SHIFT 2160]),
     (29227, [Entry 1 True, SHIFT 5306]), (29229, [Entry 1 True, SHIFT 3428]),
     (29231, [Entry 1 True, SHIFT 4725]), (29233, [Entry 1 True, SHIFT 5765]),
     (29235, [Entry 1 True, SHIFT 2166]), (29237, [Entry 1 True, SHIFT 7164]),
     (29239, [Entry 1 True, SHIFT 5559]), (29241, [Entry 1 True, SHIFT 2169]),
     (29243, [Entry 1 True, SHIFT 4211]), (29245, [Entry 1 True, SHIFT 2171]),
     (29247, [Entry 1 True, SHIFT 2172]), (29249, [Entry 1 True, SHIFT 4962]),
     (29251, [Entry 1 True, SHIFT 5560]), (29253, [Entry 1 True, SHIFT 2175]),
     (29255, [Entry 1 True, SHIFT 2348]), (29257, [Entry 1 True, SHIFT 2177]),
     (29259, [Entry 1 True, SHIFT 5317]), (29261, [Entry 1 True, SHIFT 5562]),
     (29263, [Entry 1 True, SHIFT 2180]), (29265, [Entry 1 True, SHIFT 4215]),
     (29267, [Entry 1 True, SHIFT 2189]), (29269, [Entry 1 True, SHIFT 2191]),
     (29271, [Entry 1 True, SHIFT 7077]), (29273, [Entry 1 True, SHIFT 5563]),
     (29275, [Entry 1 True, SHIFT 2194]), (29277, [Entry 1 True, SHIFT 5318]),
     (29279, [Entry 1 True, SHIFT 5565]), (29281, [Entry 1 True, SHIFT 2197]),
     (29283, [Entry 1 True, SHIFT 6079]), (29285, [Entry 1 True, SHIFT 2201]),
     (29287, [Entry 1 True, SHIFT 2202]), (29289, [Entry 1 True, SHIFT 5649]),
     (29291, [Entry 1 True, SHIFT 2204]), (29293, [Entry 1 True, SHIFT 5569]),
     (29295, [Entry 1 True, SHIFT 2206]), (29297, [Entry 1 True, SHIFT 2207]),
     (29299, [Entry 1 True, SHIFT 5026]), (29301, [Entry 1 True, SHIFT 5343]),
     (29303, [Entry 1 True, SHIFT 2210]), (29305, [Entry 1 True, SHIFT 4232]),
     (29307, [Entry 1 True, SHIFT 2212]), (29309, [Entry 1 True, SHIFT 2213]),
     (29311, [Entry 1 True, SHIFT 5570]), (29313, [Entry 1 True, SHIFT 2219]),
     (29315, [Entry 1 True, SHIFT 7082]), (29317, [Entry 1 True, SHIFT 5037]),
     (29319, [Entry 1 True, SHIFT 2222]), (29321, [Entry 1 True, SHIFT 4233]),
     (29323, [Entry 1 True, SHIFT 2224]), (29325, [Entry 1 True, SHIFT 2225]),
     (29327, [Entry 1 True, SHIFT 3533]), (29329, [Entry 1 True, SHIFT 5571]),
     (29331, [Entry 1 True, SHIFT 2228]), (29333, [Entry 1 True, SHIFT 4726]),
     (29335, [Entry 1 True, SHIFT 2230]), (29337, [Entry 1 True, SHIFT 5063]),
     (29339, [Entry 1 True, SHIFT 7917]), (29341, [Entry 1 True, SHIFT 2233]),
     (29343, [Entry 1 True, SHIFT 2234]), (29345, [Entry 1 True, SHIFT 4234]),
     (29347, [Entry 1 True, SHIFT 2236]), (29349, [Entry 1 True, SHIFT 2237]),
     (29351, [Entry 1 True, SHIFT 7867]), (29353, [Entry 1 True, SHIFT 2239]),
     (29355, [Entry 1 True, SHIFT 2240]), (29357, [Entry 1 True, SHIFT 10063]),
     (29359, [Entry 1 True, SHIFT 2242]), (29361, [Entry 1 True, SHIFT 5357]),
     (29363, [Entry 1 True, SHIFT 2244]), (29365, [Entry 1 True, SHIFT 3430]),
     (29367, [Entry 1 True, SHIFT 2247]), (29369, [Entry 1 True, SHIFT 2248]),
     (29371, [Entry 1 True, SHIFT 6080]), (29373, [Entry 1 True, SHIFT 2250])]"

lemma ts_parse_actions_97_tiled: "tiled_from 29075 ts_parse_actions_97 \<and> after_runs 29075 ts_parse_actions_97 = 29375"
  unfolding ts_parse_actions_97_def by (simp cong: runs_weak)

lemma ts_parse_actions_97_ok: "list_all (\<lambda>(i, es). group_ok es) ts_parse_actions_97"
  unfolding ts_parse_actions_97_def
  by (simp add: group_ok_simps entry_action_ok_simps del: One_nat_def group_ok.simps cong: list_all_weak)

text \<open>Lines 495271 to 495410.\<close>

definition ts_parse_actions_98 :: "(nat \<times> TSParseActionEntry list) list" where
  "ts_parse_actions_98 =
    [(29375, [Entry 1 True, SHIFT 5366]), (29377, [Entry 1 True, SHIFT 2252]),
     (29379, [Entry 1 True, SHIFT 2253]), (29381, [Entry 1 True, SHIFT 4236]),
     (29383, [Entry 1 True, SHIFT 5066]), (29385, [Entry 1 True, SHIFT 2256]),
     (29387, [Entry 1 True, SHIFT 5572]), (29389, [Entry 1 True, SHIFT 2258]),
     (29391, [Entry 1 True, SHIFT 2259]), (29393, [Entry 1 True, SHIFT 4237]),
     (29395, [Entry 1 True, SHIFT 2261]), (29397, [Entry 1 True, SHIFT 2262]),
     (29399, [Entry 1 True, SHIFT 7090]), (29401, [Entry 1 True, SHIFT 2264]),
     (29403, [Entry 1 True, SHIFT 2265]), (29405, [Entry 1 True, SHIFT 2266]),
     (29407, [Entry 1 True, SHIFT 3677]), (29409, [Entry 1 True, SHIFT 2268]),
     (29411, [Entry 1 True, SHIFT 2269]), (29413, [Entry 1 True, SHIFT 5108]),
     (29415, [Entry 1 True, SHIFT 2271]), (29417, [Entry 1 True, SHIFT 2272]),
     (29419, [Entry 1 True, SHIFT 7189]), (29421, [Entry 1 True, SHIFT 2274]),
     (29423, [Entry 1 True, SHIFT 4239]), (29425, [Entry 1 True, SHIFT 2276]),
     (29427, [Entry 1 True, SHIFT 2277]), (29429, [Entry 1 True, SHIFT 2278]),
     (29431, [Entry 1 True, SHIFT 2279]), (29433, [Entry 1 True, SHIFT 5371]),
     (29435, [Entry 1 True, SHIFT 2281]), (29437, [Entry 1 True, SHIFT 2282]),
     (29439, [Entry 1 True, SHIFT 2283]), (29441, [Entry 1 True, SHIFT 6781]),
     (29443, [Entry 1 True, SHIFT 3431]), (29445, [Entry 1 True, SHIFT 1135]),
     (29447, [Entry 1 True, SHIFT 4728]), (29449, [Entry 1 True, SHIFT 6081]),
     (29451, [Entry 1 True, SHIFT 7163]), (29453, [Entry 1 True, SHIFT 7982]),
     (29455, [Entry 1 True, SHIFT 4729]), (29457, [Entry 1 True, SHIFT 7423]),
     (29459, [Entry 1 True, SHIFT 10061]), (29461, [Entry 1 True, SHIFT 6083]),
     (29463, [Entry 1 True, SHIFT 7097]), (29465, [Entry 1 True, SHIFT 917]),
     (29467, [Entry 1 True, SHIFT 6084]), (29469, [Entry 1 True, SHIFT 5574]),
     (29471, [Entry 1 True, SHIFT 3357]), (29473, [Entry 1 True, SHIFT 5141]),
     (29475, [Entry 1 True, SHIFT 3432]), (29477, [Entry 1 True, SHIFT 4730]),
     (29479, [Entry 1 True, SHIFT 4283]), (29481, [Entry 1 True, SHIFT 5576]),
     (29483, [Entry 1 True, SHIFT 5577]), (29485, [Entry 1 True, SHIFT 4378]),
     (29487, [Entry 1 True, SHIFT 7169]), (29489, [Entry 1 True, SHIFT 6085]),
     (29491, [Entry 1 True, SHIFT 8096]), (29493, [Entry 1 True, SHIFT 7889]),
     (29495, [Entry 1 True, SHIFT 920]), (29497, [Entry 1 True, SHIFT 4253]),
     (29499, [Entry 1 True, SHIFT 4732]), (29501, [Entry 1 True, SHIFT 922]),
     (29503, [Entry 1 True, SHIFT 5379]), (29505, [Entry 1 True, SHIFT 3434]),
     (29507, [Entry 1 True, SHIFT 10125]), (29509, [Entry 1 True, SHIFT 4733]),
     (29511, [Entry 1 True, SHIFT 924]), (29513, [Entry 1 True, SHIFT 8437]),
     (29515, [Entry 1 True, SHIFT 10134]), (29517, [Entry 1 True, SHIFT 6086]),
     (29519, [Entry 1 True, SHIFT 5578]), (29521, [Entry 1 True, SHIFT 926]),
     (29523, [Entry 1 True, SHIFT 4255]), (29525, [Entry 1 True, SHIFT 3435]),
     (29527, [Entry 1 True, SHIFT 927]), (29529, [Entry 1 True, SHIFT 4256]),
     (29531, [Entry 1 True, SHIFT 6796]), (29533, [Entry 1 True, SHIFT 929]),
     (29535, [Entry 1 True, SHIFT 10172]), (29537, [Entry 1 True, SHIFT 5580]),
     (29539, [Entry 1 True, SHIFT 4735]), (29541, [Entry 1 True, SHIFT 5581]),
     (29543, [Entry 1 True, SHIFT 5245]), (29545, [Entry 1 True, SHIFT 5455]),
     (29547, [Entry 1 True, SHIFT 930]), (29549, [Entry 1 True, SHIFT 4258]),
     (29551, [Entry 1 True, SHIFT 5583]), (29553, [Entry 1 True, SHIFT 6623]),
     (29555, [Entry 1 True, SHIFT 5466]), (29557, [Entry 1 True, SHIFT 5522]),
     (29559, [Entry 1 True, SHIFT 5587]), (29561, [Entry 1 True, SHIFT 8033]),
     (29563, [Entry 1 True, SHIFT 6087]), (29565, [Entry 1 True, SHIFT 5766]),
     (29567, [Entry 1 True, SHIFT 933]), (29569, [Entry 1 True, SHIFT 6549]),
     (29571, [Entry 1 True, SHIFT 4262]), (29573, [Entry 1 True, SHIFT 3437]),
     (29575, [Entry 1 True, SHIFT 6089]), (29577, [Entry 1 True, SHIFT 936]),
     (29579, [Entry 1 True, SHIFT 5588]), (29581, [Entry 1 True, SHIFT 4739]),
     (29583, [Entry 1 True, SHIFT 938]), (29585, [Entry 1 True, SHIFT 10320]),
     (29587, [Entry 1 True, SHIFT 6090]), (29589, [Entry 1 True, SHIFT 940]),
     (29591, [Entry 1 True, SHIFT 4379]), (29593, [Entry 1 True, SHIFT 4740]),
     (29595, [Entry 1 True, SHIFT 4263]), (29597, [Entry 1 True, SHIFT 942]),
     (29599, [Entry 1 True, SHIFT 5590]), (29601, [Entry 1 True, SHIFT 943]),
     (29603, [Entry 1 True, SHIFT 5536]), (29605, [Entry 1 True, SHIFT 6798]),
     (29607, [Entry 1 True, SHIFT 945]), (29609, [Entry 1 True, SHIFT 7131]),
     (29611, [Entry 1 True, SHIFT 4265]), (29613, [Entry 1 True, SHIFT 5594]),
     (29615, [Entry 1 True, SHIFT 7173]), (29617, [Entry 1 True, SHIFT 6091]),
     (29619, [Entry 1 True, SHIFT 946]), (29621, [Entry 1 True, SHIFT 5592]),
     (29623, [Entry 1 True, SHIFT 4269]), (29625, [Entry 1 True, SHIFT 5601]),
     (29627, [Entry 1 True, SHIFT 9733]), (29629, [Entry 1 True, SHIFT 5602]),
     (29631, [Entry 1 True, SHIFT 3441]), (29633, [Entry 1 True, SHIFT 6799]),
     (29635, [Entry 1 True, SHIFT 5608]), (29637, [Entry 1 True, SHIFT 4276]),
     (29639, [Entry 1 True, SHIFT 5603]), (29641, [Entry 1 True, SHIFT 7821]),
     (29643, [Entry 1 True, SHIFT 4277]), (29645, [Entry 1 True, SHIFT 80]),
     (29647, [Entry 1 True, SHIFT 5623]), (29649, [Entry 1 True, SHIFT 82]),
     (29651, [Entry 1 True, SHIFT 43]), (29653, [Entry 1 True, SHIFT 5604])]"

lemma ts_parse_actions_98_tiled: "tiled_from 29375 ts_parse_actions_98 \<and> after_runs 29375 ts_parse_actions_98 = 29655"
  unfolding ts_parse_actions_98_def by (simp cong: runs_weak)

lemma ts_parse_actions_98_ok: "list_all (\<lambda>(i, es). group_ok es) ts_parse_actions_98"
  unfolding ts_parse_actions_98_def
  by (simp add: group_ok_simps entry_action_ok_simps del: One_nat_def group_ok.simps cong: list_all_weak)

end
