(* ===== verification/Action_Properties.thy ===== *)
theory Action_Properties
  imports Action_Table_1 Action_Table_2 Action_Table_3 Action_Table_4 Parse_Rows
begin

text \<open>
  The groups of \<open>ts_parse_actions\<close> together, and the properties of the actions: the parser finds them
  from every cell of its rows, and a reduction has the children that its production names.
\<close>

section \<open>The table\<close>

definition action_runs :: "(nat \<times> TSParseActionEntry list) list" where
  "action_runs =
     ts_parse_actions_1 @ ts_parse_actions_2 @ ts_parse_actions_3 @ ts_parse_actions_4 @
     ts_parse_actions_5 @ ts_parse_actions_6 @ ts_parse_actions_7 @ ts_parse_actions_8 @
     ts_parse_actions_9 @ ts_parse_actions_10 @ ts_parse_actions_11 @ ts_parse_actions_12 @
     ts_parse_actions_13 @ ts_parse_actions_14 @ ts_parse_actions_15 @ ts_parse_actions_16 @
     ts_parse_actions_17 @ ts_parse_actions_18 @ ts_parse_actions_19 @ ts_parse_actions_20 @
     ts_parse_actions_21 @ ts_parse_actions_22 @ ts_parse_actions_23 @ ts_parse_actions_24 @
     ts_parse_actions_25 @ ts_parse_actions_26 @ ts_parse_actions_27 @ ts_parse_actions_28 @
     ts_parse_actions_29 @ ts_parse_actions_30 @ ts_parse_actions_31 @ ts_parse_actions_32 @
     ts_parse_actions_33 @ ts_parse_actions_34 @ ts_parse_actions_35 @ ts_parse_actions_36 @
     ts_parse_actions_37 @ ts_parse_actions_38 @ ts_parse_actions_39 @ ts_parse_actions_40 @
     ts_parse_actions_41 @ ts_parse_actions_42 @ ts_parse_actions_43 @ ts_parse_actions_44 @
     ts_parse_actions_45 @ ts_parse_actions_46 @ ts_parse_actions_47 @ ts_parse_actions_48 @
     ts_parse_actions_49 @ ts_parse_actions_50 @ ts_parse_actions_51 @ ts_parse_actions_52 @
     ts_parse_actions_53 @ ts_parse_actions_54 @ ts_parse_actions_55 @ ts_parse_actions_56 @
     ts_parse_actions_57 @ ts_parse_actions_58 @ ts_parse_actions_59 @ ts_parse_actions_60 @
     ts_parse_actions_61 @ ts_parse_actions_62 @ ts_parse_actions_63 @ ts_parse_actions_64 @
     ts_parse_actions_65 @ ts_parse_actions_66 @ ts_parse_actions_67 @ ts_parse_actions_68 @
     ts_parse_actions_69 @ ts_parse_actions_70 @ ts_parse_actions_71 @ ts_parse_actions_72 @
     ts_parse_actions_73 @ ts_parse_actions_74 @ ts_parse_actions_75 @ ts_parse_actions_76 @
     ts_parse_actions_77 @ ts_parse_actions_78 @ ts_parse_actions_79 @ ts_parse_actions_80 @
     ts_parse_actions_81 @ ts_parse_actions_82 @ ts_parse_actions_83 @ ts_parse_actions_84 @
     ts_parse_actions_85 @ ts_parse_actions_86 @ ts_parse_actions_87 @ ts_parse_actions_88 @
     ts_parse_actions_89 @ ts_parse_actions_90 @ ts_parse_actions_91 @ ts_parse_actions_92 @
     ts_parse_actions_93 @ ts_parse_actions_94 @ ts_parse_actions_95 @ ts_parse_actions_96 @
     ts_parse_actions_97 @ ts_parse_actions_98"

definition ts_parse_actions :: "TSParseActionEntry list" where
  "ts_parse_actions = runs (Entry 0 False) action_runs"

lemma action_runs_tiled: "tiled_from 0 action_runs"
  by (simp add: action_runs_def tiled_append after_runs_append
      ts_parse_actions_1_tiled ts_parse_actions_2_tiled ts_parse_actions_3_tiled
      ts_parse_actions_4_tiled ts_parse_actions_5_tiled ts_parse_actions_6_tiled
      ts_parse_actions_7_tiled ts_parse_actions_8_tiled ts_parse_actions_9_tiled
      ts_parse_actions_10_tiled ts_parse_actions_11_tiled ts_parse_actions_12_tiled
      ts_parse_actions_13_tiled ts_parse_actions_14_tiled ts_parse_actions_15_tiled
      ts_parse_actions_16_tiled ts_parse_actions_17_tiled ts_parse_actions_18_tiled
      ts_parse_actions_19_tiled ts_parse_actions_20_tiled ts_parse_actions_21_tiled
      ts_parse_actions_22_tiled ts_parse_actions_23_tiled ts_parse_actions_24_tiled
      ts_parse_actions_25_tiled ts_parse_actions_26_tiled ts_parse_actions_27_tiled
      ts_parse_actions_28_tiled ts_parse_actions_29_tiled ts_parse_actions_30_tiled
      ts_parse_actions_31_tiled ts_parse_actions_32_tiled ts_parse_actions_33_tiled
      ts_parse_actions_34_tiled ts_parse_actions_35_tiled ts_parse_actions_36_tiled
      ts_parse_actions_37_tiled ts_parse_actions_38_tiled ts_parse_actions_39_tiled
      ts_parse_actions_40_tiled ts_parse_actions_41_tiled ts_parse_actions_42_tiled
      ts_parse_actions_43_tiled ts_parse_actions_44_tiled ts_parse_actions_45_tiled
      ts_parse_actions_46_tiled ts_parse_actions_47_tiled ts_parse_actions_48_tiled
      ts_parse_actions_49_tiled ts_parse_actions_50_tiled ts_parse_actions_51_tiled
      ts_parse_actions_52_tiled ts_parse_actions_53_tiled ts_parse_actions_54_tiled
      ts_parse_actions_55_tiled ts_parse_actions_56_tiled ts_parse_actions_57_tiled
      ts_parse_actions_58_tiled ts_parse_actions_59_tiled ts_parse_actions_60_tiled
      ts_parse_actions_61_tiled ts_parse_actions_62_tiled ts_parse_actions_63_tiled
      ts_parse_actions_64_tiled ts_parse_actions_65_tiled ts_parse_actions_66_tiled
      ts_parse_actions_67_tiled ts_parse_actions_68_tiled ts_parse_actions_69_tiled
      ts_parse_actions_70_tiled ts_parse_actions_71_tiled ts_parse_actions_72_tiled
      ts_parse_actions_73_tiled ts_parse_actions_74_tiled ts_parse_actions_75_tiled
      ts_parse_actions_76_tiled ts_parse_actions_77_tiled ts_parse_actions_78_tiled
      ts_parse_actions_79_tiled ts_parse_actions_80_tiled ts_parse_actions_81_tiled
      ts_parse_actions_82_tiled ts_parse_actions_83_tiled ts_parse_actions_84_tiled
      ts_parse_actions_85_tiled ts_parse_actions_86_tiled ts_parse_actions_87_tiled
      ts_parse_actions_88_tiled ts_parse_actions_89_tiled ts_parse_actions_90_tiled
      ts_parse_actions_91_tiled ts_parse_actions_92_tiled ts_parse_actions_93_tiled
      ts_parse_actions_94_tiled ts_parse_actions_95_tiled ts_parse_actions_96_tiled
      ts_parse_actions_97_tiled ts_parse_actions_98_tiled)

lemma action_groups_ok: "list_all (\<lambda>(i, es). group_ok es) action_runs"
  by (simp add: action_runs_def
      ts_parse_actions_1_ok ts_parse_actions_2_ok ts_parse_actions_3_ok ts_parse_actions_4_ok
      ts_parse_actions_5_ok ts_parse_actions_6_ok ts_parse_actions_7_ok ts_parse_actions_8_ok
      ts_parse_actions_9_ok ts_parse_actions_10_ok ts_parse_actions_11_ok ts_parse_actions_12_ok
      ts_parse_actions_13_ok ts_parse_actions_14_ok ts_parse_actions_15_ok ts_parse_actions_16_ok
      ts_parse_actions_17_ok ts_parse_actions_18_ok ts_parse_actions_19_ok ts_parse_actions_20_ok
      ts_parse_actions_21_ok ts_parse_actions_22_ok ts_parse_actions_23_ok ts_parse_actions_24_ok
      ts_parse_actions_25_ok ts_parse_actions_26_ok ts_parse_actions_27_ok ts_parse_actions_28_ok
      ts_parse_actions_29_ok ts_parse_actions_30_ok ts_parse_actions_31_ok ts_parse_actions_32_ok
      ts_parse_actions_33_ok ts_parse_actions_34_ok ts_parse_actions_35_ok ts_parse_actions_36_ok
      ts_parse_actions_37_ok ts_parse_actions_38_ok ts_parse_actions_39_ok ts_parse_actions_40_ok
      ts_parse_actions_41_ok ts_parse_actions_42_ok ts_parse_actions_43_ok ts_parse_actions_44_ok
      ts_parse_actions_45_ok ts_parse_actions_46_ok ts_parse_actions_47_ok ts_parse_actions_48_ok
      ts_parse_actions_49_ok ts_parse_actions_50_ok ts_parse_actions_51_ok ts_parse_actions_52_ok
      ts_parse_actions_53_ok ts_parse_actions_54_ok ts_parse_actions_55_ok ts_parse_actions_56_ok
      ts_parse_actions_57_ok ts_parse_actions_58_ok ts_parse_actions_59_ok ts_parse_actions_60_ok
      ts_parse_actions_61_ok ts_parse_actions_62_ok ts_parse_actions_63_ok ts_parse_actions_64_ok
      ts_parse_actions_65_ok ts_parse_actions_66_ok ts_parse_actions_67_ok ts_parse_actions_68_ok
      ts_parse_actions_69_ok ts_parse_actions_70_ok ts_parse_actions_71_ok ts_parse_actions_72_ok
      ts_parse_actions_73_ok ts_parse_actions_74_ok ts_parse_actions_75_ok ts_parse_actions_76_ok
      ts_parse_actions_77_ok ts_parse_actions_78_ok ts_parse_actions_79_ok ts_parse_actions_80_ok
      ts_parse_actions_81_ok ts_parse_actions_82_ok ts_parse_actions_83_ok ts_parse_actions_84_ok
      ts_parse_actions_85_ok ts_parse_actions_86_ok ts_parse_actions_87_ok ts_parse_actions_88_ok
      ts_parse_actions_89_ok ts_parse_actions_90_ok ts_parse_actions_91_ok ts_parse_actions_92_ok
      ts_parse_actions_93_ok ts_parse_actions_94_ok ts_parse_actions_95_ok ts_parse_actions_96_ok
      ts_parse_actions_97_ok ts_parse_actions_98_ok)

interpretation parse_actions: run_table "Entry 0 False" action_runs ts_parse_actions
  by unfold_locales (simp_all add: action_runs_tiled ts_parse_actions_def)

text \<open>A group starts at every index that a row has.\<close>

lemma row_action_starts:
  "set row_actions_1 \<subseteq> fst ` set ts_parse_actions_1"
  "set row_actions_2 \<subseteq> fst ` set ts_parse_actions_2"
  "set row_actions_3 \<subseteq> fst ` set ts_parse_actions_3"
  "set row_actions_4 \<subseteq> fst ` set ts_parse_actions_4"
  "set row_actions_5 \<subseteq> fst ` set ts_parse_actions_5"
  "set row_actions_6 \<subseteq> fst ` set ts_parse_actions_6"
  "set row_actions_7 \<subseteq> fst ` set ts_parse_actions_7"
  "set row_actions_8 \<subseteq> fst ` set ts_parse_actions_8"
  "set row_actions_9 \<subseteq> fst ` set ts_parse_actions_9"
  "set row_actions_10 \<subseteq> fst ` set ts_parse_actions_10"
  "set row_actions_11 \<subseteq> fst ` set ts_parse_actions_11"
  "set row_actions_12 \<subseteq> fst ` set ts_parse_actions_12"
  subgoal using arg_cong[OF row_actions_1_start, of set] by auto
  subgoal using arg_cong[OF row_actions_2_start, of set] by auto
  subgoal using arg_cong[OF row_actions_3_start, of set] by auto
  subgoal using arg_cong[OF row_actions_4_start, of set] by auto
  subgoal using arg_cong[OF row_actions_5_start, of set] by auto
  subgoal using arg_cong[OF row_actions_6_start, of set] by auto
  subgoal using arg_cong[OF row_actions_7_start, of set] by auto
  subgoal using arg_cong[OF row_actions_8_start, of set] by auto
  subgoal using arg_cong[OF row_actions_9_start, of set] by auto
  subgoal using arg_cong[OF row_actions_10_start, of set] by auto
  subgoal using arg_cong[OF row_actions_11_start, of set] by auto
  subgoal using set_take_subset[of 9 "map fst ts_parse_actions_12"] unfolding row_actions_12_start by simp
  done

lemma action_group:
  assumes "action_index v"
  obtains es where "(v, es) \<in> set action_runs"
proof -
  have "v \<in> fst ` set action_runs"
    using assms row_action_starts unfolding action_index_def action_runs_def by auto
  then show ?thesis
    using that by auto
qed

section \<open>Reading a group\<close>

text \<open>The actions at an index: those that the head of the group there counts.\<close>

definition actions_at :: "nat \<Rightarrow> TSParseAction list" where
  "actions_at v =
     map action (take (entry_count (ts_parse_actions ! v)) (drop (Suc v) ts_parse_actions))"

lemma group_read:
  assumes "(v, es) \<in> set action_runs"
  obtains n r as where "es = Entry n r # map Action as" "length as = n" "list_all action_ok as"
    "v + n < length ts_parse_actions" "ts_parse_actions ! v = Entry n r"
    "take n (drop (Suc v) ts_parse_actions) = map Action as"
proof -
  have "group_ok es"
    using action_groups_ok assms by (auto simp: list_all_iff)
  then obtain n r as where es: "es = Entry n r # map Action as" "length as = n" "list_all action_ok as"
    by (rule group_okE)
  have bound: "v + n < length ts_parse_actions"
    using parse_actions.table_bound[OF assms] by (simp add: es)
  have "take (length es) (drop v ts_parse_actions) = es"
    using parse_actions.table_runs assms by (auto simp: list_all_iff)
  moreover have "drop v ts_parse_actions = ts_parse_actions ! v # drop (Suc v) ts_parse_actions"
    using bound by (simp add: Cons_nth_drop_Suc)
  ultimately show ?thesis
    using that[OF es bound] by (simp add: es)
qed

lemma actions_at_group: "(v, Entry n r # map Action as) \<in> set action_runs \<Longrightarrow> actions_at v = as"
  by (erule group_read) (simp add: actions_at_def map_idI inj_map_eq_map inj_def)

lemma first_groups: "(0, [Entry 0 False]) \<in> set action_runs" "(3, [Entry 1 True, SHIFT_EXTRA]) \<in> set action_runs"
  by (simp_all add: action_runs_def ts_parse_actions_1_def)

lemma cell_group:
  assumes "p < 1348" and "y < TOKEN_COUNT"
  obtains es where "(ts_parse_table_rows ! p ! y, es) \<in> set action_runs"
  using token_cell[OF assms] first_groups(1) action_group that by metis

section \<open>The properties\<close>

text \<open>
  C16. From every cell of a token the parser finds its actions: the index of the cell is the head of a
  group inside the table, as many actions follow as the head counts, a shift goes to a state of the
  parser, and a reduction makes a non-terminal by one of the productions.
\<close>

theorem cell_actions_found:
  fixes lang :: "'s TSLanguage"
  assumes "lang = tree_sitter_rk iswspace uninit" and "p < length ts_parse_table_rows"
    and "y < token_count lang" and "v = ts_parse_table_rows ! p ! y"
  shows "\<exists>n r as. ts_parse_actions ! v = Entry n r \<and> v + n < length ts_parse_actions \<and>
    take n (drop (Suc v) ts_parse_actions) = map Action as \<and>
    list_all (\<lambda>a. case a of
        TSParseActionTypeShift q _ _ \<Rightarrow> q < state_count lang
      | TSParseActionTypeReduce c x _ k \<Rightarrow>
          token_count lang \<le> x \<and> x < symbol_count lang \<and> k < production_id_count lang
      | _ \<Rightarrow> True) as"
proof -
  have "p < 1348" "y < TOKEN_COUNT"
    using assms(1-3) by (simp_all add: parse_table_length TOKEN_COUNT_def)
  then obtain es where "(v, es) \<in> set action_runs"
    unfolding assms(4) by (rule cell_group)
  then obtain n r as where as: "list_all action_ok as" "v + n < length ts_parse_actions"
      "ts_parse_actions ! v = Entry n r" "take n (drop (Suc v) ts_parse_actions) = map Action as"
    by (rule group_read)
  have "case a of
        TSParseActionTypeShift q _ _ \<Rightarrow> q < state_count lang
      | TSParseActionTypeReduce c x _ k \<Rightarrow>
          token_count lang \<le> x \<and> x < symbol_count lang \<and> k < production_id_count lang
      | _ \<Rightarrow> True" if "action_ok a" for a
    using that
    by (cases a) (simp_all add: assms(1) tree_sitter_rk_def reduce_symbol_ok_def reduce_ok_def)
  with as show ?thesis
    by (auto simp: list_all_iff)
qed

theorem cell_actions_found_witness:
  "\<exists>n r as. ts_parse_actions ! (ts_parse_table_rows ! 1347 ! sym_pragma) = Entry n r \<and>
    take n (drop (Suc (ts_parse_table_rows ! 1347 ! sym_pragma)) ts_parse_actions) = map Action as"
proof -
  let ?lang = "tree_sitter_rk c_iswspace [] :: lexer_view TSLanguage"
  have "sym_pragma < token_count ?lang"
    by (simp add: token_numbers)
  from cell_actions_found[OF refl _ this refl, of 1347] show ?thesis
    by (simp add: parse_table_length) blast
qed

text \<open>
  C17. A reduction has all the children that its production names: no reduction of \<open>ts_parse_actions\<close> has
  fewer children than an entry of the field map or an alias of its production needs, nor more than an
  alias sequence has places.
\<close>

theorem reductions_have_children:
  assumes "Action (TSParseActionTypeReduce c y d p) \<in> set ts_parse_actions"
  shows "c \<le> MAX_ALIAS_SEQUENCE_LENGTH \<and> p < PRODUCTION_ID_COUNT \<and>
    (\<forall>e \<in> set (production_fields p). child_index e < c) \<and>
    (\<forall>i < MAX_ALIAS_SEQUENCE_LENGTH. ts_alias_sequences ! p ! i \<noteq> 0 \<longrightarrow> i < c)"
proof -
  obtain v es where group: "(v, es) \<in> set action_runs" "Action (TSParseActionTypeReduce c y d p) \<in> set es"
    using assms by (auto simp: parse_actions.table_concat)
  from group(1) obtain n r as where "es = Entry n r # map Action as" "list_all action_ok as"
    by (rule group_read)
  with group(2) have "action_ok (TSParseActionTypeReduce c y d p)"
    by (auto simp: list_all_iff)
  then show ?thesis
    by (simp add: reduce_ok_def children_within_def)
qed

theorem reductions_have_children_witness:
  "44 < PRODUCTION_ID_COUNT \<and> list_all (\<lambda>e. child_index e < 3) (production_fields 44)"
proof -
  have "(2888, [Entry 1 False, REDUCE sym_direct_variable 3 0 44]) \<in> set action_runs"
    by (simp add: action_runs_def ts_parse_actions_10_def)
  then have "Action (TSParseActionTypeReduce 3 sym_direct_variable 0 44) \<in> set ts_parse_actions"
    unfolding parse_actions.table_concat REDUCE_def by force
  from reductions_have_children[OF this] show ?thesis
    by (simp add: list_all_iff)
qed

text \<open>
  C18. Comments may stand anywhere: in each of the first 1348 states the one action for a line comment, a
  comment of either style and an unknown pragma is to shift it as an extra.
\<close>

theorem comments_are_extras:
  assumes "p < length ts_parse_table_rows"
    and "y \<in> {sym_line_comment, sym_c_style_comment, sym_pascal_style_comment, sym_pragma}"
  shows "actions_at (ts_parse_table_rows ! p ! y) = [TSParseActionTypeShift 0 True False]"
proof -
  have "ts_parse_table_rows ! p ! y = 3"
    using extra_cell[of p y] assms by (auto simp: parse_table_length extra_tokens_def)
  moreover have "actions_at 3 = [TSParseActionTypeShift 0 True False]"
    using actions_at_group[of 3 1 True "[TSParseActionTypeShift 0 True False]"] first_groups(2)
    by (simp add: SHIFT_EXTRA_def)
  ultimately show ?thesis
    by simp
qed

theorem comments_are_extras_witness:
  "actions_at (ts_parse_table_rows ! 700 ! sym_pragma) = [TSParseActionTypeShift 0 True False]"
  using comments_are_extras[of 700 sym_pragma] by (simp add: parse_table_length)

end
