(* ===== verification/Spec2Isabelle.thy ===== *)
theory Spec2Isabelle
  imports Array_Properties Supertypes Primary_Correct Parse_Properties Action_Properties
begin

text \<open>
  A verification library for the C code of \<open>rk\<close>, a compiler from IEC 61131-3 Structured Text to
  WebAssembly: the parser front end in \<open>src/crates/tree-sitter/src\<close>. The program reads a source file
  one token at a time. In a state of the parser the runtime of tree-sitter looks up the state's mode,
  asks the external scanner (\<open>scanner.c\<close>) for one of the tokens the mode allows, then the generated
  lexer \<open>ts_lex\<close> (\<open>parser.c\<close>); when that finds an identifier it asks \<open>ts_lex_keywords\<close> whether the
  word is a keyword. All of them read the input through the callbacks of \<open>TSLexer\<close> (\<open>parser.h\<close>).

  Theories and the code they model.

  \<^item> \<open>Rk_Prelude\<close>: the types of the C code (\<open>TSSymbol\<close>, \<open>TSStateId\<close>, \<open>uint32\<close>), characters as code
    points, lemmas on lists, maps and words the other theories share.
  \<^item> \<open>TSLexer_API\<close>: the struct \<open>TSLexer\<close> as a record of functions on a state, and what the runtime
    documents of them as the locale \<open>lexer_contract\<close>. The runtime is not in the repository: every
    theorem about a token holds for any lexer with this contract, and \<open>buffer_lexer\<close> is one.
    \<open>iswspace\<close>, which depends on the C locale, is an argument with the laws of \<open>wspace_class\<close>.
  \<^item> \<open>External_Scanner\<close>: \<open>scanner.c\<close>, function by function. \<open>Comment_Spec\<close> and \<open>Pragma_Spec\<close> say what
    nested comments and pragmas are, independently of the code; \<open>Scanner_Correct\<close> proves each loop
    against them, \<open>Scanner_Properties\<close> states what a call returns.
  \<^item> \<open>Char_Sets\<close>: \<open>set_contains\<close> and the two tables of identifier characters. \<open>Lex_Macros\<close>: the lexer
    macros of \<open>parser.h\<close> and the loop they make. \<open>Symbols\<close>, \<open>Lex_Table\<close>, \<open>Keyword_Table\<close>: the token
    numbers and the 220 and 666 cases of \<open>ts_lex\<close> and \<open>ts_lex_keywords\<close>, in the order of the file.
  \<^item> \<open>Longest_Match\<close>: the automaton of a table and its longest match. \<open>Lexer_Loop\<close>: the locale
    \<open>lexer_table\<close>, a check of a table that computes, and the proof that the loop then returns the
    longest match. \<open>Lexer_Correct\<close> passes the check on both tables. \<open>Keyword_Language\<close> walks the
    keyword automaton along the list of the grammar's keywords; \<open>Identifier_Tokens\<close> does the same for
    the states inside an identifier. \<open>Lexer_Properties\<close> states what the two lexers return.
  \<^item> \<open>Token_Regexps\<close>: regular expressions, their derivatives, and the locale \<open>expression_automaton\<close>
    of a table whose states each hold what is left of the expressions to read. \<open>Token_Language\<close>: the 62
    token expressions of \<open>grammar.js\<close>, which of them each of the 16 lex states in use reads, and the
    check that \<open>ts_lex\<close> is their automaton. \<open>Token_Properties\<close>: the language of a lex state, and what
    holds of all its tokens.
  \<^item> \<open>Parse_Modes\<close>, \<open>Reserved_Words\<close>: the tables \<open>ts_lex_modes\<close> (10545 states) and
    \<open>ts_reserved_words\<close> (48 sets). \<open>Language\<close>: the tables of the external scanner, the struct
    \<open>tree_sitter_rk\<close> returns, and the properties of scanner, lexers and tables together: in every state
    of the parser, \<open>ts_lex\<close> returns the longest word of the grammar's tokens.
  \<^item> \<open>C_Initializers\<close>: what an array initialiser of C with designators makes, and the locales
    \<open>designated_table\<close> and \<open>run_table\<close> of the two kinds of tables \<open>parser.c\<close> has; the tables below are
    interpretations of one, but the rows of the parser. \<open>Grammar_Symbols\<close>, \<open>Symbol_Tables\<close>: the non-terminals and alias symbols, and
    the name, shown symbol, flags and subtypes of each of the 604 symbols. \<open>Symbol_Properties\<close>,
    \<open>Supertypes\<close>: names tell symbols apart, supertypes lead to shown nodes. \<open>Token_Names\<close>: the lexers
    read the names of anonymous tokens back.
  \<^item> \<open>Field_Tables\<close>, \<open>Field_Map\<close>: the 109 fields, and for each of 2855 productions the children with
    their fields and the aliases. \<open>Production_Fields\<close>: slices in bounds and in the order a search needs.
    \<open>Primary_States\<close>, \<open>Primary_Correct\<close>: the representative of each parser state.
  \<^item> \<open>Parse_Cells\<close>: a row of the LR table \<open>ts_parse_table\<close>, and a check of its cells against the tokens of
    its mode. \<open>Parse_Table_1\<close> to \<open>Parse_Table_9\<close>: the rows of the states 0 to 1347, each with its check.
    \<open>Row_Tokens\<close>: a word for every token of these rows, which the lexers or the scanner read.
    \<open>Parse_Rows\<close>, \<open>Parse_Properties\<close>: the rows together with the modes of their states; a state has
    actions for a token only if the token can be read there.
  \<^item> \<open>Parse_Actions\<close>: the actions of the parser (\<open>TSParseAction\<close> and its macros in \<open>parser.h\<close>) and what a
    group of them has to be. \<open>Reduce_Counts\<close>: for each production the numbers of children its
    reductions have, against its fields and aliases. \<open>Action_Table_1\<close> to \<open>Action_Table_4\<close>: the 14690
    groups of \<open>ts_parse_actions\<close>, each with its check. \<open>Action_Properties\<close>: every cell of a row leads to
    a group, and a reduction has the children its production names.
  \<^item> \<open>Dynamic_Array\<close>: the growable array of \<open>array.h\<close> over blocks of cells. \<open>Array_Correct\<close>: the
    relation to lists and the locales of an allocator. \<open>Sorted_Array\<close>: binary search and insertion,
    with the locale of a comparison. \<open>Array_Properties\<close>: what each operation does to the list.

  Bounds. A loop that callbacks drive is a \<^theory_text>\<open>partial_function\<close> into \<open>option\<close>, \<open>None\<close> for a run that
  does not return; that it returns is proved, not assumed. The \<open>unsigned\<close> depth of a comment and the
  \<open>uint32_t\<close> sizes are 32-bit words that wrap; \<open>scan_ready\<close> asks for an input of fewer than 2^32
  characters, and the array theorems for fewer than 2^32 elements. An array operation returns its
  result or a \<open>fault\<close>: a failed \<open>assert\<close>, or a read or write through the null pointer or outside a
  block, with its index. Symbols, states and table indices are natural numbers, as the tables only
  read them.

  Not modelled. The rows 1348 to 2336 of \<open>ts_parse_table\<close> and \<open>ts_small_parse_table\<close>: more data of the kind
  of the rows modelled, that only the runtime interprets. The bindings for other languages. In \<open>array.h\<close>,
  a pointer to elements of the array that is spliced, and a \<open>size_t\<close> too small for the bytes of a
  block. The Rust crates, which hold the rest of the compiler.
\<close>

end
